(* ===== verification/Prelude.thy ===== *)
theory Prelude
  imports Main "HOL-Library.Word" "HOL-Library.Monad_Syntax"
begin

text \<open>
  Shared vocabulary of the development: the C integer widths, blocks of memory as lists of
  cells (\<open>None\<close> for a cell nobody has written), and the lemmas on lists, options and words
  that more than one component needs, and the contract of operations that keep a property of the state.

  A computation of C code has a result in the option type. \<open>None\<close> says that the call does
  not return normally: it reads or writes outside a block, reads a cell that was never
  written, fails an \<open>assert\<close>, or loops for ever. A theorem that a function returns
  \<open>Some\<close> therefore excludes all of these.
\<close>

named_theorems mem_simps \<open>simplification of reads and writes of memory blocks\<close>

type_synonym u8 = "8 word"
type_synonym u16 = "16 word"
type_synonym u32 = "32 word"

section \<open>Memory blocks\<close>

type_synonym 'a cells = "'a option list"

definition block_alloc :: "nat \<Rightarrow> 'a cells" where
  "block_alloc n = replicate n None"

definition block_realloc :: "'a cells \<Rightarrow> nat \<Rightarrow> 'a cells" where
  "block_realloc cs n = take n cs @ replicate (n - length cs) None"

definition block_write :: "'a cells \<Rightarrow> nat \<Rightarrow> 'a \<Rightarrow> 'a cells option" where
  "block_write cs i x = (if i < length cs then Some (cs[i := Some x]) else None)"

definition block_read :: "'a cells \<Rightarrow> nat \<Rightarrow> 'a option" where
  "block_read cs i = (if i < length cs then cs ! i else None)"

text \<open>\<open>memmove\<close> inside one block, and \<open>memcpy\<close> from other cells into a block.\<close>

definition block_copy_in :: "'a cells \<Rightarrow> nat \<Rightarrow> 'a cells \<Rightarrow> 'a cells option" where
  "block_copy_in cs dst xs =
     (if dst + length xs \<le> length cs
      then Some (take dst cs @ xs @ drop (dst + length xs) cs) else None)"

definition block_slice :: "'a cells \<Rightarrow> nat \<Rightarrow> nat \<Rightarrow> 'a cells option" where
  "block_slice cs src n = (if src + n \<le> length cs then Some (take n (drop src cs)) else None)"

definition block_move :: "'a cells \<Rightarrow> nat \<Rightarrow> nat \<Rightarrow> nat \<Rightarrow> 'a cells option" where
  "block_move cs dst src n = Option.bind (block_slice cs src n) (block_copy_in cs dst)"

lemma length_block_alloc [simp]: "length (block_alloc n) = n"
  by (simp add: block_alloc_def)

lemma length_block_realloc [simp]: "length (block_realloc cs n) = n"
  by (simp add: block_realloc_def)

lemma take_block_realloc: "k \<le> length cs \<Longrightarrow> k \<le> n \<Longrightarrow> take k (block_realloc cs n) = take k cs"
  by (simp add: block_realloc_def min_def)

lemma block_write_Some [mem_simps]:
  "i < length cs \<Longrightarrow> block_write cs i x = Some (cs[i := Some x])"
  by (simp add: block_write_def)

lemma block_read_prefix:
  "take (length xs) cs = map Some xs \<Longrightarrow> i < length xs \<Longrightarrow> block_read cs i = Some (xs ! i)"
proof -
  assume a: "take (length xs) cs = map Some xs" and i: "i < length xs"
  from arg_cong [OF a, of length] have l: "length xs \<le> length cs" by simp
  have "cs ! i = take (length xs) cs ! i" using i by simp
  also have "\<dots> = Some (xs ! i)" using a i by simp
  finally show ?thesis using i l by (simp add: block_read_def)
qed

lemma take_list_update_snoc:
  "n < length cs \<Longrightarrow> take n cs = ys \<Longrightarrow> take (Suc n) (cs[n := y]) = ys @ [y]"
  by (simp add: take_Suc_conv_app_nth)

section \<open>Words\<close>

lemma unat_add_no_wrap:
  "unat (a :: 'a::len word) + unat b < 2 ^ LENGTH('a) \<Longrightarrow> unat (a + b) = unat a + unat b"
  by (simp add: unat_word_ariths)

lemma unat_succ_no_wrap:
  "unat (a :: 'a::len word) + 1 < 2 ^ LENGTH('a) \<Longrightarrow> unat (a + 1) = unat a + 1"
  by (simp add: unat_word_ariths)

lemma unat_pred: "0 < unat (a :: 'a::len word) \<Longrightarrow> unat (a - 1) = unat a - 1"
  by (metis unat_gt_0 unat_minus_one)

lemma unat_u32_bound: "unat (a :: u32) < 4294967296"
  using unsigned_less [where 'a = nat, of a] by simp

lemma unat_u16_bound: "unat (a :: u16) < 65536"
  using unsigned_less [where 'a = nat, of a] by simp

lemma unat_u8_bound: "unat (a :: u8) < 256"
  using unsigned_less [where 'a = nat, of a] by simp

section \<open>Sessions\<close>

text \<open>Steps that keep a property of the state: the contract between the operations of a component, one step
  each, and what a session of calls may rely on.\<close>

locale kept_by_steps =
  fixes step :: "'s \<Rightarrow> 's \<Rightarrow> bool" and good :: "'s \<Rightarrow> bool"
  assumes step_good: "step s t \<Longrightarrow> good s \<Longrightarrow> good t"
begin

lemma steps_good: "step\<^sup>*\<^sup>* s t \<Longrightarrow> good s \<Longrightarrow> good t"
  by (induction rule: rtranclp_induct) (auto dest: step_good)

end

end
