(* ===== verification/TS_Array.thy ===== *)
theory TS_Array
  imports Prelude
begin

text \<open>
  The growable array of \<^verbatim>\<open>grammars/tree-sitter-mojo/src/tree_sitter/array.h\<close>.

  A \<open>tarray\<close> is the struct of the macro \<open>Array(T)\<close>: the block \<open>contents\<close> points to (\<open>None\<close>
  for the null pointer) and two 32-bit counters, whose arithmetic wraps around as in C.
  Element sizes are factored out: a block is a list of cells, one per element, and the C
  byte counts \<open>n * element_size\<close> become cell counts. Allocation is taken to succeed, as
  the header itself assumes (it never tests the pointer it gets back); every read or write
  outside a block, every read of a cell that was never written and every failed \<open>assert\<close>
  is the result \<open>None\<close>.
\<close>

section \<open>The data and the operations\<close>

record 'a tarray =
  contents :: "'a cells option"
  asize :: u32
  capacity :: u32

definition array_new :: "'a tarray" where
  "array_new = \<lparr>contents = None, asize = 0, capacity = 0\<rparr>"

definition array_init :: "'a tarray \<Rightarrow> 'a tarray" where
  "array_init self = self\<lparr>asize := 0, capacity := 0, contents := None\<rparr>"

text \<open>The cells a pointer into the array can reach: none through the null pointer.\<close>

definition arr_cells :: "'a tarray \<Rightarrow> 'a cells" where
  "arr_cells self = (case contents self of None \<Rightarrow> [] | Some cs \<Rightarrow> cs)"

definition arr_read :: "'a tarray \<Rightarrow> u32 \<Rightarrow> 'a option" where
  "arr_read self i = block_read (arr_cells self) (unat i)"

definition arr_write :: "'a tarray \<Rightarrow> u32 \<Rightarrow> 'a \<Rightarrow> 'a tarray option" where
  "arr_write self i x = do {
     cs \<leftarrow> block_write (arr_cells self) (unat i) x;
     Some (self\<lparr>contents := Some cs\<rparr>) }"

definition array_get :: "'a tarray \<Rightarrow> u32 \<Rightarrow> 'a option" where
  "array_get self index = (if index < asize self then arr_read self index else None)"

definition array_front :: "'a tarray \<Rightarrow> 'a option" where
  "array_front self = array_get self 0"

definition array_back :: "'a tarray \<Rightarrow> 'a option" where
  "array_back self = array_get self (asize self - 1)"

definition array_clear :: "'a tarray \<Rightarrow> 'a tarray" where
  "array_clear self = self\<lparr>asize := 0\<rparr>"

definition array_delete :: "'a tarray \<Rightarrow> 'a tarray" where
  "array_delete self =
     (if contents self \<noteq> None
      then self\<lparr>contents := None, asize := 0, capacity := 0\<rparr> else self)"

definition array_reserve :: "'a tarray \<Rightarrow> u32 \<Rightarrow> 'a tarray" where
  "array_reserve self new_capacity =
     (if new_capacity > capacity self then
        self\<lparr>contents := Some (case contents self of
                 Some cs \<Rightarrow> block_realloc cs (unat new_capacity)
               | None \<Rightarrow> block_alloc (unat new_capacity)),
             capacity := new_capacity\<rparr>
      else self)"

definition array_grow :: "'a tarray \<Rightarrow> u32 \<Rightarrow> 'a tarray" where
  "array_grow self count =
     (let new_size = asize self + count in
      if new_size > capacity self then
        (let new_capacity = capacity self * 2;
             new_capacity = (if new_capacity < 8 then 8 else new_capacity);
             new_capacity = (if new_capacity < new_size then new_size else new_capacity)
         in array_reserve self new_capacity)
      else self)"

definition array_push :: "'a tarray \<Rightarrow> 'a \<Rightarrow> 'a tarray option" where
  "array_push self element = do {
     let self = array_grow self 1;
     self' \<leftarrow> arr_write self (asize self) element;
     Some (self'\<lparr>asize := asize self + 1\<rparr>) }"

definition array_pop :: "'a tarray \<Rightarrow> ('a \<times> 'a tarray) option" where
  "array_pop self = do {
     let n = asize self - 1;
     x \<leftarrow> arr_read self n;
     Some (x, self\<lparr>asize := n\<rparr>) }"

definition array_grow_by :: "'a \<Rightarrow> 'a tarray \<Rightarrow> u32 \<Rightarrow> 'a tarray option" where
  "array_grow_by zero self count =
     (if count = 0 then Some self else do {
        let self = array_grow self count;
        cs \<leftarrow> block_copy_in (arr_cells self) (unat (asize self))
                (replicate (unat count) (Some zero));
        Some (self\<lparr>contents := Some cs, asize := asize self + count\<rparr>) })"

definition array_erase :: "'a tarray \<Rightarrow> u32 \<Rightarrow> 'a tarray option" where
  "array_erase self index =
     (if index < asize self then do {
        cs \<leftarrow> block_move (arr_cells self) (unat index) (unat (index + 1))
                (unat (asize self - index - 1));
        Some (self\<lparr>contents := Some cs, asize := asize self - 1\<rparr>) }
      else None)"

text \<open>
  \<open>_array__splice\<close>: \<open>elements\<close> is \<open>None\<close> for the null pointer, and then the new cells are
  zeroed. The three block operations are guarded exactly as in the source.
\<close>

definition splice_move :: "'a tarray \<Rightarrow> u32 \<Rightarrow> u32 \<Rightarrow> 'a tarray option" where
  "splice_move self old_end new_end =
     (if asize self > old_end then do {
        cs \<leftarrow> block_move (arr_cells self) (unat new_end) (unat old_end)
                (unat (asize self - old_end));
        Some (self\<lparr>contents := Some cs\<rparr>) }
      else Some self)"

definition splice_fill :: "'a \<Rightarrow> 'a tarray \<Rightarrow> u32 \<Rightarrow> u32 \<Rightarrow> 'a cells option \<Rightarrow> 'a tarray option" where
  "splice_fill zero self index new_count elements =
     (if new_count > 0 then do {
        src \<leftarrow> (case elements of
                  Some es \<Rightarrow> block_slice es 0 (unat new_count)
                | None \<Rightarrow> Some (replicate (unat new_count) (Some zero)));
        cs \<leftarrow> block_copy_in (arr_cells self) (unat index) src;
        Some (self\<lparr>contents := Some cs\<rparr>) }
      else Some self)"

definition array_splice ::
    "'a \<Rightarrow> 'a tarray \<Rightarrow> u32 \<Rightarrow> u32 \<Rightarrow> u32 \<Rightarrow> 'a cells option \<Rightarrow> 'a tarray option" where
  "array_splice zero self index old_count new_count elements =
     (let new_size = asize self + new_count - old_count;
          old_end = index + old_count;
          new_end = index + new_count
      in if \<not> old_end \<le> asize self then None else do {
        self \<leftarrow> splice_move (array_reserve self new_size) old_end new_end;
        self \<leftarrow> splice_fill zero self index new_count elements;
        Some (self\<lparr>asize := asize self + (new_count - old_count)\<rparr>) })"

definition array_extend :: "'a \<Rightarrow> 'a tarray \<Rightarrow> u32 \<Rightarrow> 'a cells option \<Rightarrow> 'a tarray option" where
  "array_extend zero self count elements = array_splice zero self (asize self) 0 count elements"

definition array_push_all :: "'a \<Rightarrow> 'a tarray \<Rightarrow> 'a tarray \<Rightarrow> 'a tarray option" where
  "array_push_all zero self other = array_extend zero self (asize other) (contents other)"

definition array_insert :: "'a \<Rightarrow> 'a tarray \<Rightarrow> u32 \<Rightarrow> 'a \<Rightarrow> 'a tarray option" where
  "array_insert zero self index element =
     array_splice zero self index 0 1 (Some [Some element])"

definition array_assign :: "'a tarray \<Rightarrow> 'a tarray \<Rightarrow> 'a tarray option" where
  "array_assign self other = do {
     let self = array_reserve self (asize other);
     src \<leftarrow> block_slice (arr_cells other) 0 (unat (asize other));
     cs \<leftarrow> block_copy_in (arr_cells self) 0 src;
     Some (self\<lparr>asize := asize other,
                contents := (case contents self of None \<Rightarrow> None | Some _ \<Rightarrow> Some cs)\<rparr>) }"

definition array_swap :: "'a tarray \<Rightarrow> 'a tarray \<Rightarrow> 'a tarray \<times> 'a tarray" where
  "array_swap self other = (other, self)"

text \<open>
  The binary search of \<open>_array__search_sorted\<close>. The comparison is the macro's argument; its
  result is \<open>None\<close> where evaluating it is undefined (signed overflow in \<open>_compare_int\<close>).
\<close>

function search_loop ::
    "('a \<Rightarrow> 'b \<Rightarrow> int option) \<Rightarrow> 'a tarray \<Rightarrow> 'b \<Rightarrow> u32 \<Rightarrow> u32 \<Rightarrow> u32 option" where
  "search_loop compare self needle index sz =
     (if sz > 1 then do {
        let half_size = sz div 2;
        let mid_index = index + half_size;
        x \<leftarrow> arr_read self mid_index;
        comparison \<leftarrow> compare x needle;
        search_loop compare self needle (if comparison \<le> 0 then mid_index else index)
          (sz - half_size) }
      else Some index)"
  by pat_completeness auto

lemma half_size_decreases: "(1 :: u32) < sz \<Longrightarrow> unat (sz - sz div 2) < unat sz"
proof -
  assume "(1 :: u32) < sz"
  then have s: "1 < unat sz" by (simp add: word_less_nat_alt)
  have h: "unat (sz div 2) = unat sz div 2" by (simp add: unat_div)
  then have "sz div 2 \<le> sz" by (simp add: word_le_nat_alt)
  then have "unat (sz - sz div 2) = unat sz - unat sz div 2"
    using h by (simp add: unat_sub)
  then show ?thesis using s by simp
qed

termination search_loop
  by (relation "measure (\<lambda>(_, _, _, _, sz). unat sz)")
    (auto simp: half_size_decreases)

declare search_loop.simps [simp del]

definition array_search_sorted ::
    "('a \<Rightarrow> 'b \<Rightarrow> int option) \<Rightarrow> 'a tarray \<Rightarrow> u32 \<Rightarrow> 'b \<Rightarrow> (u32 \<times> bool) option" where
  "array_search_sorted compare self start needle =
     (let sz = asize self - start in
      if sz = 0 then Some (start, False) else do {
        index \<leftarrow> search_loop compare self needle start sz;
        x \<leftarrow> arr_read self index;
        comparison \<leftarrow> compare x needle;
        Some (if comparison = 0 then (index, True)
              else if comparison < 0 then (index + 1, False)
              else (index, False)) })"

definition array_insert_sorted ::
    "'a \<Rightarrow> ('a \<Rightarrow> 'a \<Rightarrow> int option) \<Rightarrow> 'a tarray \<Rightarrow> 'a \<Rightarrow> 'a tarray option" where
  "array_insert_sorted zero compare self value = do {
     (index, exists) \<leftarrow> array_search_sorted compare self 0 value;
     if \<not> exists then array_insert zero self index value else Some self }"

text \<open>The keys of the \<open>_by\<close> macros are 32-bit integers; the casts of \<open>_compare_int\<close> read them
  as C's signed \<open>int\<close>, and the difference is undefined where it leaves that type.\<close>

definition compare_int :: "32 word \<Rightarrow> 32 word \<Rightarrow> int option" where
  "compare_int a b =
     (let d = sint a - sint b in if - (2 ^ 31) \<le> d \<and> d < 2 ^ 31 then Some d else None)"

definition array_insert_sorted_by ::
    "'a \<Rightarrow> ('a \<Rightarrow> 32 word) \<Rightarrow> 'a tarray \<Rightarrow> 'a \<Rightarrow> 'a tarray option" where
  "array_insert_sorted_by zero field self value = do {
     (index, exists) \<leftarrow>
       array_search_sorted (\<lambda>x. compare_int (field x)) self 0 (field value);
     if \<not> exists then array_insert zero self index value else Some self }"


section \<open>The sequence an array holds\<close>

text \<open>
  \<open>arr_rep a xs\<close>: the block has as many cells as \<open>capacity\<close> says and its first \<open>asize\<close>
  cells hold the elements of \<open>xs\<close>. It is the representation invariant and the abstraction
  in one predicate; the operations are specified on \<open>xs\<close>.
\<close>

definition arr_rep :: "'a tarray \<Rightarrow> 'a list \<Rightarrow> bool" where
  "arr_rep a xs \<longleftrightarrow> length (arr_cells a) = unat (capacity a) \<and> unat (asize a) = length xs \<and>
     take (length xs) (arr_cells a) = map Some xs"

lemma arr_rep_fits: "arr_rep a xs \<Longrightarrow> length xs \<le> length (arr_cells a)"
  unfolding arr_rep_def by (metis length_map length_take min.absorb_iff2 min.commute)

lemma take_map_prefix:
  "take (length xs) cs = map Some xs \<Longrightarrow> i \<le> length xs \<Longrightarrow> take i cs = map Some (take i xs)"
  by (metis min.absorb1 take_map take_take)

lemma arr_rep_take: "arr_rep a xs \<Longrightarrow> i \<le> length xs \<Longrightarrow> take i (arr_cells a) = map Some (take i xs)"
  by (simp add: arr_rep_def take_map_prefix)

lemma arr_rep_unique: "arr_rep a xs \<Longrightarrow> arr_rep a ys \<Longrightarrow> xs = ys"
  by (auto simp: arr_rep_def dest!: inj_map_eq_map [THEN iffD1, rotated])

lemma arr_rep_asize: "arr_rep a xs \<Longrightarrow> asize a = of_nat (length xs)"
  unfolding arr_rep_def by (metis of_nat_unat ucast_id)

lemma arr_rep_empty: "arr_rep a xs \<Longrightarrow> (asize a = 0) = (xs = [])"
  by (auto simp: arr_rep_def unat_eq_zero [symmetric])

lemma arr_rep_nonempty: "arr_rep a xs \<Longrightarrow> (asize a > 0) = (xs \<noteq> [])"
  using arr_rep_empty by (auto simp: word_gt_0)

lemma arr_rep_length: "arr_rep a xs \<Longrightarrow> length xs < 4294967296"
  by (metis arr_rep_def unat_u32_bound)

lemma arr_cells_simps [simp]:
  "arr_cells (a\<lparr>contents := Some cs\<rparr>) = cs"
  "arr_cells (a\<lparr>asize := n\<rparr>) = arr_cells a"
  "arr_cells (a\<lparr>capacity := n\<rparr>) = arr_cells a"
  by (simp_all add: arr_cells_def)

lemma arr_rep_new: "arr_rep array_new []"
  by (simp add: arr_rep_def array_new_def arr_cells_def)

lemma arr_rep_init: "arr_rep (array_init a) []"
  by (simp add: arr_rep_def array_init_def arr_cells_def)

lemma arr_rep_clear: "arr_rep a xs \<Longrightarrow> arr_rep (array_clear a) []"
  by (simp add: arr_rep_def array_clear_def)

lemma arr_rep_delete: "arr_rep a xs \<Longrightarrow> arr_rep (array_delete a) []"
  by (auto simp: arr_rep_def array_delete_def arr_cells_def)

lemma arr_rep_reserve:
  assumes "arr_rep a xs"
  shows "arr_rep (array_reserve a n) xs" "n \<le> capacity (array_reserve a n)"
    "capacity a \<le> capacity (array_reserve a n)"
    "asize (array_reserve a n) = asize a"
proof -
  have fits: "length xs \<le> length (arr_cells a)" using assms by (rule arr_rep_fits)
  have "arr_rep (array_reserve a n) xs" if "n > capacity a"
  proof -
    from that have lt: "unat (capacity a) < unat n" by (simp add: word_less_nat_alt)
    with assms fits have "length xs \<le> unat n" by (simp add: arr_rep_def)
    then show ?thesis using that assms fits
      by (cases "contents a")
        (auto simp: array_reserve_def arr_rep_def arr_cells_def take_block_realloc)
  qed
  then show "arr_rep (array_reserve a n) xs"
    using assms by (cases "n > capacity a") (auto simp: array_reserve_def)
qed (auto simp: array_reserve_def)

lemma arr_rep_grow:
  assumes "arr_rep a xs" and "length xs + unat count < 4294967296"
  shows "arr_rep (array_grow a count) xs"
    "length xs + unat count \<le> length (arr_cells (array_grow a count))"
    "asize (array_grow a count) = asize a"
proof -
  let ?new = "asize a + count"
  have new: "unat ?new = length xs + unat count"
    using assms by (subst unat_add_no_wrap) (auto simp: arr_rep_def)
  have *: "arr_rep (array_grow a count) xs \<and> asize (array_grow a count) = asize a \<and>
      ?new \<le> capacity (array_grow a count)"
  proof (cases "?new > capacity a")
    case False
    then show ?thesis using assms(1) by (auto simp: array_grow_def Let_def)
  next
    case True
    define n1 where "n1 = (if capacity a * 2 < 8 then 8 else capacity a * 2)"
    define n where "n = (if n1 < ?new then ?new else n1)"
    from True have "array_grow a count = array_reserve a n"
      by (simp only: array_grow_def Let_def if_True n_def n1_def)
    moreover have "?new \<le> n" by (auto simp: n_def)
    ultimately show ?thesis
      using arr_rep_reserve [OF assms(1), of n] by (auto intro: order_trans)
  qed
  then show "arr_rep (array_grow a count) xs" "asize (array_grow a count) = asize a"
    by simp_all
  from * show "length xs + unat count \<le> length (arr_cells (array_grow a count))"
    by (simp add: arr_rep_def new [symmetric] word_le_nat_alt)
qed

lemma arr_read_rep: "arr_rep a xs \<Longrightarrow> unat i < length xs \<Longrightarrow> arr_read a i = Some (xs ! unat i)"
  by (simp add: arr_read_def arr_rep_def block_read_prefix)

lemma array_get_rep: "arr_rep a xs \<Longrightarrow> unat i < length xs \<Longrightarrow> array_get a i = Some (xs ! unat i)"
  by (simp add: array_get_def arr_read_rep word_less_nat_alt) (simp add: arr_rep_def)

lemma unat_asize_pred: "arr_rep a xs \<Longrightarrow> xs \<noteq> [] \<Longrightarrow> unat (asize a - 1) = length xs - 1"
  by (subst unat_pred) (auto simp: arr_rep_def)

lemma array_back_rep: "arr_rep a xs \<Longrightarrow> xs \<noteq> [] \<Longrightarrow> array_back a = Some (last xs)"
  by (simp add: array_back_def array_get_rep unat_asize_pred last_conv_nth)

lemma array_pop_rep:
  assumes "arr_rep a xs" and "xs \<noteq> []"
  shows "\<exists>a'. array_pop a = Some (last xs, a') \<and> arr_rep a' (butlast xs)"
proof -
  have r: "arr_read a (asize a - 1) = Some (last xs)"
    using assms by (simp add: arr_read_rep unat_asize_pred last_conv_nth)
  have "take (length xs - 1) (arr_cells a) = map Some (butlast xs)"
    using arr_rep_take [OF assms(1), of "length xs - 1"] by (simp add: butlast_conv_take)
  then have "arr_rep (a\<lparr>asize := asize a - 1\<rparr>) (butlast xs)"
    using assms unat_asize_pred [OF assms] by (simp add: arr_rep_def)
  with r show ?thesis by (simp add: array_pop_def)
qed

lemma array_push_rep:
  assumes "arr_rep a xs" and "length xs + 1 < 4294967296"
  shows "\<exists>a'. array_push a x = Some a' \<and> arr_rep a' (xs @ [x])"
proof -
  let ?g = "array_grow a 1"
  note g = arr_rep_grow [OF assms(1), of 1]
  have room: "length xs < length (arr_cells ?g)" and rep: "arr_rep ?g xs"
    using g assms(2) by simp_all
  have n: "unat (asize ?g) = length xs" using rep by (simp add: arr_rep_def)
  have s: "unat (asize ?g + 1) = Suc (length xs)"
    using n assms(2) by (subst unat_succ_no_wrap) auto
  have "arr_rep (?g\<lparr>contents := Some ((arr_cells ?g)[length xs := Some x]), asize := asize ?g + 1\<rparr>)
      (xs @ [x])"
    using rep room s by (simp add: arr_rep_def take_list_update_snoc)
  then show ?thesis using room n
    by (simp add: array_push_def arr_write_def block_write_def Let_def)
qed

subsection \<open>Splicing\<close>

lemma block_slice_rep:
  "take (length xs) cs = map Some xs \<Longrightarrow> n \<le> length xs \<Longrightarrow>
     block_slice cs 0 n = Some (map Some (take n xs))"
proof -
  assume a: "take (length xs) cs = map Some xs" and n: "n \<le> length xs"
  from arg_cong [OF a, of length] n have "n \<le> length cs" by simp
  moreover have "take n cs = take n (take (length xs) cs)" using n by (simp add: min_def)
  ultimately show ?thesis using a by (simp add: block_slice_def take_map)
qed

text \<open>Opening the gap: the tail of the sequence moves from \<open>i + k\<close> to \<open>i + n\<close>.\<close>

lemma block_move_tail:
  assumes cs: "take (length xs) cs = map Some xs" and "i + k \<le> length xs"
    and "length xs - k + n \<le> length cs"
  shows "\<exists>cs'. block_move cs (i + n) (i + k) (length xs - (i + k)) = Some cs' \<and>
     length cs' = length cs \<and> take (i + n) cs' = take (i + n) cs \<and>
     take (length xs - (i + k)) (drop (i + n) cs') = map Some (drop (i + k) xs)"
proof -
  let ?m = "length xs - (i + k)"
  from arg_cong [OF cs, of length] have fits: "length xs \<le> length cs" by simp
  have "take ?m (drop (i + k) cs) = drop (i + k) (take (length xs) cs)"
    by (simp add: drop_take)
  then have src: "take ?m (drop (i + k) cs) = map Some (drop (i + k) xs)"
    by (simp add: cs drop_map)
  have room: "(i + n) + ?m \<le> length cs" using assms(2,3) by simp
  then show ?thesis using fits assms(2)
    by (simp add: block_move_def block_slice_def block_copy_in_def src min_def) arith
qed

lemma block_copy_in_mid:
  assumes "i + length ys \<le> length cs"
  shows "block_copy_in cs i ys = Some (take i cs @ ys @ drop (i + length ys) cs)"
  using assms by (simp add: block_copy_in_def)

lemma take_filled_gap:
  assumes "take i cs = map Some (take i xs)" and "i \<le> length xs" and "i + length es \<le> length cs"
    and "take m (drop (i + length es) cs) = map Some ys" and "m = length ys"
  shows "take (i + length es + m) (take i cs @ map Some es @ drop (i + length es) cs) =
     map Some (take i xs @ es @ ys)"
  using assms by (simp add: min_def)

lemma array_splice_rep:
  assumes rep: "arr_rep a xs"
    and inside: "unat index + unat old_count \<le> length xs"
    and room: "length xs - unat old_count + unat new_count < 4294967296"
    and es: "length es = unat new_count"
    and elements: "elements = Some (map Some es) \<or> elements = None \<and> es = replicate (unat new_count) zero"
  shows "\<exists>a'. array_splice zero a index old_count new_count elements = Some a' \<and>
     arr_rep a' (take (unat index) xs @ es @ drop (unat index + unat old_count) xs)"
proof -
  let ?i = "unat index" and ?k = "unat old_count" and ?n = "unat new_count"
  have len: "unat (asize a) = length xs" using rep by (simp add: arr_rep_def)
  have k: "old_count \<le> asize a" using inside len by (simp add: word_le_nat_alt)
  have old_end: "unat (index + old_count) = ?i + ?k"
    using inside arr_rep_length [OF rep] by (subst unat_add_no_wrap) auto
  have new_end: "unat (index + new_count) = ?i + ?n"
    using inside room by (subst unat_add_no_wrap) auto
  have "asize a + new_count - old_count = (asize a - old_count) + new_count" by simp
  also have "unat \<dots> = length xs - ?k + ?n"
    using room k len by (subst unat_add_no_wrap) (auto simp: unat_sub)
  finally have new_size: "unat (asize a + new_count - old_count) = length xs - ?k + ?n" .
  define r where "r = array_reserve a (asize a + new_count - old_count)"
  note rr = arr_rep_reserve [OF rep, of "asize a + new_count - old_count", folded r_def]
  have rcs: "take (length xs) (arr_cells r) = map Some xs" and rsize: "asize r = asize a"
    using rr by (simp_all add: arr_rep_def)
  have rroom: "length xs - ?k + ?n \<le> length (arr_cells r)"
    using rr new_size by (simp add: arr_rep_def word_le_nat_alt)
  have rlen: "length (arr_cells r) = unat (capacity r)" using rr(1) by (simp add: arr_rep_def)
  obtain cs1 where move: "splice_move r (index + old_count) (index + new_count) = Some cs1"
    and cs1: "length (arr_cells cs1) = length (arr_cells r)"
      "take (?i + ?n) (arr_cells cs1) = take (?i + ?n) (arr_cells r)"
      "take (length xs - (?i + ?k)) (drop (?i + ?n) (arr_cells cs1)) = map Some (drop (?i + ?k) xs)"
      "asize cs1 = asize a" "capacity cs1 = capacity r"
  proof (cases "asize r > index + old_count")
    case True
    then have "unat (asize r - (index + old_count)) = length xs - (?i + ?k)"
      using old_end len rsize by (subst unat_sub) auto
    then have amount: "unat (asize r - (index + old_count)) = length xs - (?i + ?k)" .
    obtain cs' where cs': "block_move (arr_cells r) (?i + ?n) (?i + ?k) (length xs - (?i + ?k)) = Some cs'"
        "length cs' = length (arr_cells r)" "take (?i + ?n) cs' = take (?i + ?n) (arr_cells r)"
        "take (length xs - (?i + ?k)) (drop (?i + ?n) cs') = map Some (drop (?i + ?k) xs)"
      using block_move_tail [OF rcs inside rroom] by blast
    show ?thesis
      by (rule that [of "r\<lparr>contents := Some cs'\<rparr>"])
        (simp_all add: splice_move_def True [unfolded rsize] amount [unfolded rsize]
          old_end new_end cs' rsize)
  next
    case False
    then have "length xs = ?i + ?k"
      using old_end len rsize inside by (auto simp: word_less_nat_alt not_less)
    with that False rsize show ?thesis by (auto simp: splice_move_def)
  qed
  have t: "take ?i (arr_cells cs1) = map Some (take ?i xs)"
  proof -
    have "take ?i (arr_cells cs1) = take ?i (arr_cells r)"
      by (metis cs1(2) le_add1 min.absorb1 take_take)
    then show ?thesis using inside rcs by (simp add: take_map_prefix)
  qed
  have fit: "?i + length es \<le> length (arr_cells cs1)" using cs1(1) rroom es inside by simp
  have filled: "take (length xs - ?k + ?n)
      (take ?i (arr_cells cs1) @ map Some es @ drop (?i + length es) (arr_cells cs1)) =
      map Some (take ?i xs @ es @ drop (?i + ?k) xs)"
  proof -
    have e: "length xs - ?k + ?n = ?i + length es + (length xs - (?i + ?k))"
      using es inside by simp
    show ?thesis unfolding e
      by (rule take_filled_gap [OF t _ fit]) (use cs1(3) es inside in simp_all)
  qed
  have newlen: "length (take ?i xs @ es @ drop (?i + ?k) xs) = length xs - ?k + ?n"
    using es inside by simp
  have src: "new_count > 0 \<Longrightarrow> (case elements of Some es \<Rightarrow> block_slice es 0 ?n
      | None \<Rightarrow> Some (replicate ?n (Some zero))) = Some (map Some es)"
    using elements es by (auto simp: block_slice_def)
  have e: "old_count \<le> asize a \<Longrightarrow> index + old_count \<le> asize a"
    using old_end len inside by (simp add: word_le_nat_alt)
  have sz: "unat (asize a + (new_count - old_count)) = length xs - ?k + ?n"
    using new_size by (simp add: algebra_simps)
  obtain cs2 where fill: "splice_fill zero cs1 index new_count elements = Some cs2"
    and cs2: "take (length xs - ?k + ?n) (arr_cells cs2) = map Some (take ?i xs @ es @ drop (?i + ?k) xs)"
      "length (arr_cells cs2) = unat (capacity r)" "capacity cs2 = capacity r" "asize cs2 = asize a"
  proof (cases "new_count > 0")
    case True
    show ?thesis
      by (rule that [of "cs1\<lparr>contents := Some (take ?i (arr_cells cs1) @ map Some es @
          drop (?i + length es) (arr_cells cs1))\<rparr>"])
        (use True src fit es filled cs1 rlen in \<open>simp_all add: splice_fill_def block_copy_in_def\<close>)
  next
    case False
    then have z: "new_count = 0" by (simp add: word_gt_0)
    then have "take ?i (arr_cells cs1) @ map Some es @ drop (?i + length es) (arr_cells cs1) =
        arr_cells cs1" using es by simp
    note filled [unfolded this]
    with z that cs1 rlen show ?thesis by (simp add: splice_fill_def)
  qed
  let ?a' = "cs2\<lparr>asize := asize a + (new_count - old_count)\<rparr>"
  have "array_splice zero a index old_count new_count elements = Some ?a'"
    using move fill e k cs2(4) by (simp add: array_splice_def Let_def r_def [symmetric])
  moreover have "arr_rep ?a' (take ?i xs @ es @ drop (?i + ?k) xs)"
    unfolding arr_rep_def newlen using cs2 sz by simp
  ultimately show ?thesis by blast
qed

lemma array_insert_rep:
  assumes "arr_rep a xs" and "unat index \<le> length xs" and "length xs + 1 < 4294967296"
  shows "\<exists>a'. array_insert zero a index x = Some a' \<and>
    arr_rep a' (take (unat index) xs @ x # drop (unat index) xs)"
  using array_splice_rep [OF assms(1), of index 0 1 "[x]" "Some [Some x]" zero] assms(2,3)
  by (simp add: array_insert_def)

lemma array_extend_rep:
  assumes "arr_rep a xs" and "length xs + length es < 4294967296" and "length es = unat count"
  shows "\<exists>a'. array_extend zero a count (Some (map Some es)) = Some a' \<and> arr_rep a' (xs @ es)"
proof -
  have "unat (asize a) = length xs" using assms(1) by (simp add: arr_rep_def)
  then show ?thesis
    using array_splice_rep [OF assms(1), of "asize a" 0 count es "Some (map Some es)" zero] assms(2,3)
    by (simp add: array_extend_def)
qed

lemma array_erase_rep:
  assumes rep: "arr_rep a xs" and i: "unat index < length xs"
  shows "\<exists>a'. array_erase a index = Some a' \<and>
    arr_rep a' (take (unat index) xs @ drop (Suc (unat index)) xs)"
proof -
  have len: "unat (asize a) = length xs" using rep by (simp add: arr_rep_def)
  have lt: "index < asize a" using i len by (simp add: word_less_nat_alt)
  have suc: "unat (index + 1) = unat index + 1"
    using i arr_rep_length [OF rep] by (subst unat_succ_no_wrap) auto
  have one: "unat (asize a - 1) = length xs - 1"
    using unat_asize_pred [OF rep] i by (cases xs) auto
  have amount: "unat (asize a - index - 1) = length xs - (unat index + 1)"
  proof -
    have "asize a - index - 1 = asize a - (index + 1)" by simp
    moreover have "index + 1 \<le> asize a" using suc i len by (simp add: word_le_nat_alt)
    ultimately have "unat (asize a - index - 1) = unat (asize a) - unat (index + 1)"
      by (simp only: unat_sub)
    then show ?thesis using suc len by simp
  qed
  obtain cs' where cs': "block_move (arr_cells a) (unat index) (unat index + 1)
        (length xs - (unat index + 1)) = Some cs'"
      "length cs' = length (arr_cells a)" "take (unat index) cs' = take (unat index) (arr_cells a)"
      "take (length xs - (unat index + 1)) (drop (unat index) cs') =
        map Some (drop (unat index + 1) xs)"
  proof -
    have "length xs - 1 + 0 \<le> length (arr_cells a)" using arr_rep_fits [OF rep] by simp
    then show ?thesis
      using that block_move_tail [of xs "arr_cells a" "unat index" 1 0] rep i
      by (auto simp: arr_rep_def)
  qed
  have pre: "take (unat index) cs' = map Some (take (unat index) xs)"
    using cs'(3) arr_rep_take [OF rep] i by simp
  have "take (length xs - 1) cs' = take (unat index + (length xs - (unat index + 1))) cs'"
    using i by simp
  also have "\<dots> = map Some (take (unat index) xs @ drop (unat index + 1) xs)"
    unfolding take_add pre cs'(4) by simp
  finally have "take (length xs - 1) cs' = map Some (take (unat index) xs @ drop (unat index + 1) xs)" .
  then have "arr_rep (a\<lparr>contents := Some cs', asize := asize a - 1\<rparr>)
      (take (unat index) xs @ drop (Suc (unat index)) xs)"
    using rep i cs'(2) one by (simp add: arr_rep_def min_def)
  then show ?thesis using lt suc amount cs'(1) by (simp add: array_erase_def)
qed

lemma array_assign_rep:
  assumes a: "arr_rep a xs" and b: "arr_rep b ys"
  shows "\<exists>a'. array_assign a b = Some a' \<and> arr_rep a' ys"
proof -
  define r where "r = array_reserve a (asize b)"
  note rr = arr_rep_reserve [OF a, of "asize b", folded r_def]
  have len: "unat (asize b) = length ys" using b by (simp add: arr_rep_def)
  have room: "length ys \<le> length (arr_cells r)"
    using rr(1,2) len by (simp add: arr_rep_def word_le_nat_alt)
  have src: "block_slice (arr_cells b) 0 (unat (asize b)) = Some (map Some ys)"
    using b block_slice_rep [of ys "arr_cells b" "length ys"] by (simp add: arr_rep_def)
  have cp: "block_copy_in (arr_cells r) 0 (map Some ys) =
      Some (map Some ys @ drop (length ys) (arr_cells r))"
    using room by (simp add: block_copy_in_def)
  let ?a' = "r\<lparr>asize := asize b, contents := (case contents r of None \<Rightarrow> None
      | Some _ \<Rightarrow> Some (map Some ys @ drop (length ys) (arr_cells r)))\<rparr>"
  have "arr_cells ?a' = (if contents r = None then [] else map Some ys @ drop (length ys) (arr_cells r))"
    by (auto simp: arr_cells_def split: option.splits)
  moreover have "contents r = None \<Longrightarrow> ys = []" using room by (simp add: arr_cells_def)
  ultimately have "arr_rep ?a' ys"
    using rr(1) room len by (auto simp: arr_rep_def arr_cells_def split: option.splits)
  then show ?thesis using src cp by (auto simp: array_assign_def Let_def r_def [symmetric])
qed

section \<open>Sorted search\<close>

text \<open>
  \<open>c x\<close> is the sign the comparison gives for an element. The search loop keeps the range
  \<open>[index, index + sz)\<close> such that everything right of it compares positive and, unless
  \<open>index\<close> is still 0, the element at \<open>index\<close> does not.
\<close>

lemma search_loop_rep:
  assumes rep: "arr_rep a xs"
    and cmp: "\<And>x. x \<in> set xs \<Longrightarrow> compare x needle = Some (c x)"
    and mono: "\<And>i j. i \<le> j \<Longrightarrow> j < length xs \<Longrightarrow> 0 < c (xs ! i) \<Longrightarrow> 0 < c (xs ! j)"
    and "0 < unat sz" "unat index + unat sz \<le> length xs"
    and "\<forall>j. unat index + unat sz \<le> j \<and> j < length xs \<longrightarrow> 0 < c (xs ! j)"
    and "0 < unat index \<longrightarrow> c (xs ! unat index) \<le> 0"
  shows "\<exists>r. search_loop compare a needle index sz = Some r \<and> unat r < length xs \<and>
    (\<forall>j. unat r < j \<and> j < length xs \<longrightarrow> 0 < c (xs ! j)) \<and>
    (0 < unat r \<longrightarrow> c (xs ! unat r) \<le> 0)"
  using assms(4-)
proof (induction "unat sz" arbitrary: sz index rule: less_induct)
  case less
  show ?case
  proof (cases "sz > 1")
    case False
    then have "unat sz = 1"
      using less.prems(1) by (simp add: word_less_nat_alt)
    with False less.prems show ?thesis by (simp add: search_loop.simps [of _ _ _ index])
  next
    case True
    let ?h = "sz div 2" and ?m = "index + sz div 2"
    have h: "unat ?h = unat sz div 2" by (simp add: unat_div)
    have one: "1 < unat sz" using True by (simp add: word_less_nat_alt)
    have m: "unat ?m = unat index + unat sz div 2"
      using less.prems(2) arr_rep_length [OF rep] h by (subst unat_add_no_wrap) auto
    have rest: "unat (sz - ?h) = unat sz - unat sz div 2"
      using h by (subst unat_sub) (auto simp: word_le_nat_alt)
    have inside: "unat ?m < length xs" using m one less.prems(2) by linarith
    have read: "arr_read a ?m = Some (xs ! unat ?m)" by (rule arr_read_rep [OF rep inside])
    have cm: "compare (xs ! unat ?m) needle = Some (c (xs ! unat ?m))"
      using inside by (intro cmp) simp
    let ?i = "if c (xs ! unat ?m) \<le> 0 then ?m else index"
    have step: "search_loop compare a needle index sz = search_loop compare a needle ?i (sz - ?h)"
      using True read cm by (subst search_loop.simps) (simp add: Let_def)
    have right: "\<forall>j. unat ?i + unat (sz - ?h) \<le> j \<and> j < length xs \<longrightarrow> 0 < c (xs ! j)"
    proof (cases "c (xs ! unat ?m) \<le> 0")
      case True
      then have "unat ?i + unat (sz - ?h) = unat index + unat sz"
        using m rest by simp
      with less.prems(3) show ?thesis by simp
    next
      case False
      then have pos: "0 < c (xs ! unat ?m)" by simp
      have "unat ?m \<le> unat index + unat (sz - ?h)" using m rest by linarith
      with False show ?thesis by (auto intro: mono [OF _ _ pos])
    qed
    show ?thesis unfolding step
    proof (rule less.hyps)
      show "unat (sz - ?h) < unat sz" using rest one by linarith
      show "0 < unat (sz - ?h)" using rest one by linarith
      show "unat ?i + unat (sz - ?h) \<le> length xs"
        using rest m less.prems(2) by (cases "c (xs ! unat ?m) \<le> 0") simp_all
      show "0 < unat ?i \<longrightarrow> c (xs ! unat ?i) \<le> 0" using less.prems(4) by simp
    qed (use right in simp)
  qed
qed

text \<open>
  What a caller gets: a position that holds an element equal to the needle when there is
  one, and otherwise the position that keeps the order.
\<close>

lemma array_search_sorted_rep:
  assumes rep: "arr_rep a xs"
    and cmp: "\<And>x. x \<in> set xs \<Longrightarrow> compare x needle = Some (c x)"
    and sorted: "sorted (map (sgn \<circ> c) xs)"
  shows "\<exists>i found. array_search_sorted compare a 0 needle = Some (i, found) \<and>
    unat i \<le> length xs \<and>
    (if found then unat i < length xs \<and> c (xs ! unat i) = 0
     else (\<forall>j < unat i. c (xs ! j) < 0) \<and> (\<forall>j. unat i \<le> j \<and> j < length xs \<longrightarrow> 0 < c (xs ! j)))"
proof (cases "xs = []")
  case True
  then show ?thesis using rep arr_rep_empty [OF rep]
    by (auto simp: array_search_sorted_def intro: exI [of _ False])
next
  case False
  have len: "unat (asize a) = length xs" using rep by (simp add: arr_rep_def)
  have le: "sgn (c (xs ! i)) \<le> sgn (c (xs ! j))" if "i \<le> j" "j < length xs" for i j
    using sorted_nth_mono [OF sorted that(1)] that by simp
  have mono: "0 < c (xs ! j)" if "i \<le> j" "j < length xs" "0 < c (xs ! i)" for i j
    using le [OF that(1,2)] that(3) by (simp add: sgn_if split: if_splits)
  obtain r where r: "search_loop compare a needle 0 (asize a) = Some r" "unat r < length xs"
      "\<forall>j. unat r < j \<and> j < length xs \<longrightarrow> 0 < c (xs ! j)" "0 < unat r \<longrightarrow> c (xs ! unat r) \<le> 0"
    using search_loop_rep [of a xs compare needle c "asize a" 0] rep cmp mono False len by auto
  have read: "arr_read a r = Some (xs ! unat r)" by (rule arr_read_rep [OF rep r(2)])
  have cm: "compare (xs ! unat r) needle = Some (c (xs ! unat r))" using r(2) by (intro cmp) simp
  have low: "c (xs ! j) < 0" if "c (xs ! unat r) < 0" "j \<le> unat r" for j
    using le [OF that(2) r(2)] that(1) by (simp add: sgn_if split: if_splits)
  have suc: "unat (r + 1) = unat r + 1"
    using r(2) arr_rep_length [OF rep] by (subst unat_succ_no_wrap) auto
  have eq: "array_search_sorted compare a 0 needle = Some (if c (xs ! unat r) = 0 then (r, True)
      else if c (xs ! unat r) < 0 then (r + 1, False) else (r, False))"
    using False r(1) read cm arr_rep_empty [OF rep] by (simp add: array_search_sorted_def Let_def)
  consider "c (xs ! unat r) = 0" | "c (xs ! unat r) < 0" | "0 < c (xs ! unat r)" by linarith
  then show ?thesis
  proof cases
    case 1
    then show ?thesis using eq r(2) by auto
  next
    case 2
    have "\<forall>j < unat (r + 1). c (xs ! j) < 0" using suc low [OF 2] by simp
    moreover have "\<forall>j. unat (r + 1) \<le> j \<and> j < length xs \<longrightarrow> 0 < c (xs ! j)"
      using suc r(3) by simp
    ultimately show ?thesis using eq 2 suc r(2) by auto
  next
    case 3
    then have "unat r = 0" using r(4) by auto
    moreover have "\<forall>j. unat r \<le> j \<and> j < length xs \<longrightarrow> 0 < c (xs ! j)"
      using r(3) 3 by (auto simp: le_less)
    ultimately show ?thesis using eq 3 by auto
  qed
qed

section \<open>The stack interface\<close>

text \<open>
  What a client that uses an array as a stack relies on: pushing appends, popping and
  reading the top see the last element, and the two are defined on every stack that is
  within the limit, or not empty.
\<close>

fun push_list :: "('s \<Rightarrow> 'a \<Rightarrow> 's option) \<Rightarrow> 's \<Rightarrow> 'a list \<Rightarrow> 's option" where
  "push_list push s [] = Some s"
| "push_list push s (x # xs) = Option.bind (push s x) (\<lambda>s'. push_list push s' xs)"

locale array_stack =
  fixes rep :: "'s \<Rightarrow> 'a list \<Rightarrow> bool"
    and push :: "'s \<Rightarrow> 'a \<Rightarrow> 's option"
    and pop :: "'s \<Rightarrow> ('a \<times> 's) option"
    and peek :: "'s \<Rightarrow> 'a option"
    and limit :: nat
  assumes push_rep: "rep s xs \<Longrightarrow> length xs + 1 < limit \<Longrightarrow> \<exists>s'. push s x = Some s' \<and> rep s' (xs @ [x])"
    and pop_rep: "rep s xs \<Longrightarrow> xs \<noteq> [] \<Longrightarrow> \<exists>s'. pop s = Some (last xs, s') \<and> rep s' (butlast xs)"
    and peek_rep: "rep s xs \<Longrightarrow> xs \<noteq> [] \<Longrightarrow> peek s = Some (last xs)"
    and rep_unique: "rep s xs \<Longrightarrow> rep s ys \<Longrightarrow> xs = ys"
begin

lemma push_list_rep:
  "rep s xs \<Longrightarrow> length xs + length ys < limit \<Longrightarrow>
     \<exists>s'. push_list push s ys = Some s' \<and> rep s' (xs @ ys)"
proof (induction ys arbitrary: s xs)
  case (Cons y ys)
  then obtain s1 where s1: "push s y = Some s1" "rep s1 (xs @ [y])"
    using push_rep [of s xs y] by auto
  with Cons.IH [of s1 "xs @ [y]"] Cons.prems show ?case by auto
qed simp

lemma push_peek: "rep s xs \<Longrightarrow> push s x = Some s' \<Longrightarrow> length xs + 1 < limit \<Longrightarrow> peek s' = Some x"
  using push_rep [of s xs x] peek_rep [of s' "xs @ [x]"] by auto

lemma push_pop:
  assumes "rep s xs" and "push s x = Some s'" and "length xs + 1 < limit"
  shows "\<exists>s''. pop s' = Some (x, s'') \<and> rep s'' xs"
  using push_rep [OF assms(1,3), of x] assms(2) pop_rep [of s' "xs @ [x]"] by auto

end

interpretation arr: array_stack arr_rep array_push array_pop array_back 4294967296
  by unfold_locales (fact array_push_rep array_pop_rep array_back_rep arr_rep_unique)+

end
