(* ===== verification/TS_Lexer.thy ===== *)
theory TS_Lexer
  imports Prelude
begin

text \<open>
  The lexer interface of \<^verbatim>\<open>grammars/tree-sitter-mojo/src/tree_sitter/parser.h\<close>: the struct
  \<open>TSLexer\<close>, the character-set search \<open>set_contains\<close>, and the lexer macros
  \<open>START_LEXER\<close> .. \<open>END_STATE\<close> in which the generated \<open>ts_lex\<close> functions are written.

  \<open>TSLexer\<close> is a struct of function pointers that the tree-sitter runtime fills in. The
  runtime is not part of the repository, so a lexer is a parameter: a type \<open>'l\<close> of lexer
  states and a record \<open>'l lexer_ops\<close> of the operations the scanner calls. The locale
  \<open>ts_lexer\<close> states what the runtime documents about them, and the definitions below it
  build one lexer that meets it (a text with a position), on which witnesses run.
\<close>

section \<open>The operations of a lexer\<close>

record 'l lexer_ops =
  lx_lookahead :: "'l \<Rightarrow> int"
  lx_advance :: "'l \<Rightarrow> bool \<Rightarrow> 'l"
  lx_mark_end :: "'l \<Rightarrow> 'l"
  lx_eof :: "'l \<Rightarrow> bool"
  lx_set_result :: "'l \<Rightarrow> nat \<Rightarrow> 'l"

abbreviation ch :: "char \<Rightarrow> int" where
  "ch c \<equiv> of_char c"

text \<open>
  The documented behaviour, as operations on a text: the code points ahead, how many have
  been consumed, where the token starts (it moves past characters advanced over with
  \<open>skip\<close>), where it ends once \<open>mark_end\<close> was called, and the symbol last stored.
\<close>

record source_text =
  t_input :: "int list"
  t_pos :: nat
  t_start :: nat
  t_end :: "nat option"
  t_symbol :: nat

definition text_of :: "int list \<Rightarrow> source_text" where
  "text_of cs = \<lparr>t_input = cs, t_pos = 0, t_start = 0, t_end = None, t_symbol = 0\<rparr>"

definition text_lookahead :: "source_text \<Rightarrow> int" where
  "text_lookahead t = (case t_input t of [] \<Rightarrow> 0 | c # _ \<Rightarrow> c)"

definition text_advance :: "source_text \<Rightarrow> bool \<Rightarrow> source_text" where
  "text_advance t skip = (case t_input t of [] \<Rightarrow> t
     | c # cs \<Rightarrow> t\<lparr>t_input := cs, t_pos := Suc (t_pos t),
                   t_start := (if skip then Suc (t_pos t) else t_start t)\<rparr>)"

definition text_mark_end :: "source_text \<Rightarrow> source_text" where
  "text_mark_end t = t\<lparr>t_end := Some (t_pos t)\<rparr>"

definition text_eof :: "source_text \<Rightarrow> bool" where
  "text_eof t = (t_input t = [])"

definition text_set_result :: "source_text \<Rightarrow> nat \<Rightarrow> source_text" where
  "text_set_result t s = t\<lparr>t_symbol := s\<rparr>"

definition text_ops :: "source_text lexer_ops" where
  "text_ops = \<lparr>lx_lookahead = text_lookahead, lx_advance = text_advance,
     lx_mark_end = text_mark_end, lx_eof = text_eof, lx_set_result = text_set_result\<rparr>"

text \<open>
  The contract: \<open>view\<close> reads a lexer state as a text, and every operation does to the text
  what the documentation of \<open>TSLexer\<close> says. Advancing at the end of the input does nothing,
  and \<open>lookahead\<close> is 0 there (as it is at a NUL character, which \<open>eof\<close> tells apart).
\<close>

locale ts_lexer =
  fixes L :: "'l lexer_ops" and view :: "'l \<Rightarrow> source_text"
  assumes lookahead [simp]: "lx_lookahead L l = text_lookahead (view l)"
    and advance [simp]: "view (lx_advance L l skip) = text_advance (view l) skip"
    and mark_end [simp]: "view (lx_mark_end L l) = text_mark_end (view l)"
    and eof [simp]: "lx_eof L l = text_eof (view l)"
    and set_result [simp]: "view (lx_set_result L l s) = text_set_result (view l) s"

interpretation text_lexer: ts_lexer text_ops id
  by unfold_locales (simp_all add: text_ops_def)

lemma text_ops_simps [simp]:
  "lx_lookahead text_ops = text_lookahead" "lx_advance text_ops = text_advance"
  "lx_mark_end text_ops = text_mark_end" "lx_eof text_ops = text_eof"
  "lx_set_result text_ops = text_set_result"
  by (simp_all add: text_ops_def)

lemma text_lookahead_simps [simp]:
  "t_input t = [] \<Longrightarrow> text_lookahead t = 0"
  "t_input t = c # cs \<Longrightarrow> text_lookahead t = c"
  by (simp_all add: text_lookahead_def)

lemma t_input_advance [simp]: "t_input (text_advance t skip) = tl (t_input t)"
  by (simp add: text_advance_def split: list.splits)

lemma t_end_advance [simp]: "t_end (text_advance t skip) = t_end t"
  by (simp add: text_advance_def split: list.splits)

lemma t_symbol_advance [simp]: "t_symbol (text_advance t skip) = t_symbol t"
  by (simp add: text_advance_def split: list.splits)

lemma t_pos_advance: "t_input t \<noteq> [] \<Longrightarrow> t_pos (text_advance t skip) = Suc (t_pos t)"
  by (simp add: text_advance_def split: list.splits)

lemma text_advance_end: "t_input t = [] \<Longrightarrow> text_advance t skip = t"
  by (simp add: text_advance_def)

lemma text_mark_end_simps [simp]:
  "t_input (text_mark_end t) = t_input t" "t_pos (text_mark_end t) = t_pos t"
  "t_start (text_mark_end t) = t_start t" "t_end (text_mark_end t) = Some (t_pos t)"
  "t_symbol (text_mark_end t) = t_symbol t" "text_lookahead (text_mark_end t) = text_lookahead t"
  by (simp_all add: text_mark_end_def text_lookahead_def)

lemma text_set_result_simps [simp]:
  "t_input (text_set_result t s) = t_input t" "t_pos (text_set_result t s) = t_pos t"
  "t_start (text_set_result t s) = t_start t" "t_end (text_set_result t s) = t_end t"
  "t_symbol (text_set_result t s) = s" "text_lookahead (text_set_result t s) = text_lookahead t"
  by (simp_all add: text_set_result_def text_lookahead_def)

text \<open>Consuming \<open>n\<close> characters, all with the same \<open>skip\<close> flag.\<close>

fun text_advances :: "nat \<Rightarrow> bool \<Rightarrow> source_text \<Rightarrow> source_text" where
  "text_advances 0 skip t = t"
| "text_advances (Suc n) skip t = text_advances n skip (text_advance t skip)"

lemma text_advances_simps [simp]:
  "t_input (text_advances n skip t) = drop n (t_input t)"
  "t_end (text_advances n skip t) = t_end t"
  "t_symbol (text_advances n skip t) = t_symbol t"
  by (induction n arbitrary: t) (simp_all add: drop_Suc)

lemma t_pos_advances: "n \<le> length (t_input t) \<Longrightarrow> t_pos (text_advances n skip t) = t_pos t + n"
proof (induction n arbitrary: t)
  case (Suc n)
  then have "t_input t \<noteq> []" by auto
  with Suc show ?case by (simp add: t_pos_advance)
qed simp

lemma t_start_advances_False [simp]: "t_start (text_advances n False t) = t_start t"
  by (induction n arbitrary: t) (simp_all add: text_advance_def split: list.splits)

lemma text_advances_add:
  "text_advances m skip (text_advances n skip t) = text_advances (n + m) skip t"
  by (induction n arbitrary: t) simp_all

section \<open>Loops over the lookahead\<close>

text \<open>
  The loop \<open>while (p(lexer->lookahead)) lexer->advance(lexer, skip);\<close>, which the scanner
  writes several times with different conditions.
\<close>

partial_function (option) advance_while ::
    "'l lexer_ops \<Rightarrow> (int \<Rightarrow> bool) \<Rightarrow> bool \<Rightarrow> 'l \<Rightarrow> 'l option" where
  "advance_while L p skip l =
     (if p (lx_lookahead L l) then advance_while L p skip (lx_advance L l skip) else Some l)"

declare advance_while.simps [code]

context ts_lexer
begin

text \<open>
  A condition that fails at the end of the input makes the loop stop, after exactly the
  characters that satisfy it.
\<close>

lemma advance_while_text:
  assumes "\<not> p 0"
  shows "\<exists>l'. advance_while L p skip l = Some l' \<and>
    view l' = text_advances (length (takeWhile p (t_input (view l)))) skip (view l)"
proof (induction "t_input (view l)" arbitrary: l)
  case Nil
  then show ?case using assms
    by (subst advance_while.simps) (simp flip: Nil)
next
  case (Cons c cs)
  show ?case
  proof (cases "p c")
    case False
    then show ?thesis using Cons(2) [symmetric]
      by (subst advance_while.simps) simp
  next
    case True
    let ?m = "lx_advance L l skip"
    have "cs = t_input (view ?m)" by (simp flip: Cons(2))
    from Cons(1) [OF this] obtain l' where
      "advance_while L p skip ?m = Some l'"
      "view l' = text_advances (length (takeWhile p cs)) skip (text_advance (view l) skip)"
      using \<open>cs = t_input (view ?m)\<close> by auto
    with True show ?thesis
      by (subst advance_while.simps) (simp flip: Cons(2))
  qed
qed

end

section \<open>Character sets\<close>

record TSCharacterRange =
  range_start :: int
  range_end :: int

definition in_range :: "TSCharacterRange \<Rightarrow> int \<Rightarrow> bool" where
  "in_range r c \<longleftrightarrow> range_start r \<le> c \<and> c \<le> range_end r"

text \<open>
  \<open>set_contains\<close>: a binary search over sorted, disjoint ranges. A read past the end of the
  table is \<open>None\<close>.
\<close>

function set_contains_loop ::
    "TSCharacterRange list \<Rightarrow> int \<Rightarrow> nat \<Rightarrow> nat \<Rightarrow> bool option" where
  "set_contains_loop ranges lookahead index sz =
     (if sz > 1 then
        (let half_size = sz div 2; mid_index = index + half_size
         in if mid_index < length ranges then
              (let range = ranges ! mid_index
               in if lookahead \<ge> range_start range \<and> lookahead \<le> range_end range then Some True
                  else set_contains_loop ranges lookahead
                         (if lookahead > range_end range then mid_index else index)
                         (sz - half_size))
            else None)
      else if index < length ranges then
        (let range = ranges ! index
         in Some (lookahead \<ge> range_start range \<and> lookahead \<le> range_end range))
      else None)"
  by pat_completeness auto
termination
  by (relation "measure (\<lambda>(_, _, _, sz). sz)") auto

declare set_contains_loop.simps [simp del]

definition set_contains :: "TSCharacterRange list \<Rightarrow> nat \<Rightarrow> int \<Rightarrow> bool option" where
  "set_contains ranges len lookahead = set_contains_loop ranges lookahead 0 len"

text \<open>A well-formed table: every range is non-empty and ends before the next one starts.\<close>

fun ranges_ok :: "TSCharacterRange list \<Rightarrow> bool" where
  "ranges_ok [] = True"
| "ranges_ok [r] = (range_start r \<le> range_end r)"
| "ranges_ok (r # s # rs) = (range_start r \<le> range_end r \<and> range_end r < range_start s \<and>
     ranges_ok (s # rs))"

lemma ranges_ok_nth:
  "ranges_ok rs \<Longrightarrow> i < length rs \<Longrightarrow> range_start (rs ! i) \<le> range_end (rs ! i)"
proof (induction rs arbitrary: i rule: ranges_ok.induct)
  case (3 r s rs)
  then show ?case by (cases i) auto
qed auto

lemma ranges_ok_less:
  "ranges_ok rs \<Longrightarrow> i < j \<Longrightarrow> j < length rs \<Longrightarrow> range_end (rs ! i) < range_start (rs ! j)"
proof (induction rs arbitrary: i j rule: ranges_ok.induct)
  case (3 r s rs)
  show ?case
  proof (cases i)
    case (Suc i')
    with 3 show ?thesis by (cases j) auto
  next
    case 0
    from 3 0 obtain j' where j: "j = Suc j'" by (cases j) auto
    show ?thesis
    proof (cases j')
      case 0
      with 3 j \<open>i = 0\<close> show ?thesis by simp
    next
      case (Suc k)
      have "range_end s < range_start ((s # rs) ! j')"
        using 3 j Suc "3.IH" [of 0 j'] by simp
      with 3 \<open>i = 0\<close> j ranges_ok_nth [of "s # rs" 0] show ?thesis by auto
    qed
  qed
qed auto

lemma set_contains_loop_correct:
  assumes "ranges_ok rs" and "0 < sz" and "index + sz \<le> length rs"
    and "\<forall>i < index. range_end (rs ! i) < c"
    and "\<forall>i < length rs. index + sz \<le> i \<longrightarrow> c < range_start (rs ! i)"
  shows "set_contains_loop rs c index sz = Some (\<exists>r \<in> set rs. in_range r c)"
  using assms
proof (induction rs c index sz rule: set_contains_loop.induct)
  case (1 rs c index sz)
  show ?case
  proof (cases "sz > 1")
    case False
    then have "sz = 1" using "1.prems"(2) by simp
    have "(\<exists>r \<in> set rs. in_range r c) \<longleftrightarrow> in_range (rs ! index) c"
    proof
      assume "\<exists>r \<in> set rs. in_range r c"
      then obtain i where i: "i < length rs" "in_range (rs ! i) c" by (auto simp: in_set_conv_nth)
      then have "\<not> i < index" "\<not> index + 1 \<le> i"
        using "1.prems"(4,5) \<open>sz = 1\<close> by (auto simp: in_range_def)
      then have "i = index" by simp
      with i show "in_range (rs ! index) c" by simp
    next
      assume "in_range (rs ! index) c"
      then show "\<exists>r \<in> set rs. in_range r c" using "1.prems"(3) \<open>sz = 1\<close> by auto
    qed
    then show ?thesis using \<open>sz = 1\<close> "1.prems"(3)
      by (subst set_contains_loop.simps) (simp add: in_range_def Let_def)
  next
    case True
    let ?h = "sz div 2" and ?m = "index + sz div 2"
    have m: "?m < length rs" using True "1.prems"(3) by simp
    show ?thesis
    proof (cases "in_range (rs ! ?m) c")
      case found: True
      then have "\<exists>r \<in> set rs. in_range r c" using m by auto
      with found True m show ?thesis
        by (subst set_contains_loop.simps) (simp add: in_range_def Let_def)
    next
      case False
      then have out: "c < range_start (rs ! ?m) \<or> range_end (rs ! ?m) < c"
        by (auto simp: in_range_def)
      let ?i = "if c > range_end (rs ! ?m) then ?m else index"
      have low: "\<forall>i < ?i. range_end (rs ! i) < c"
      proof (cases "c > range_end (rs ! ?m)")
        case gt: True
        have "range_end (rs ! i) < c" if "i < ?m" for i
          using ranges_ok_less [OF "1.prems"(1) that m] ranges_ok_nth [OF "1.prems"(1) m] gt
          by linarith
        with gt show ?thesis by simp
      next
        case False
        with "1.prems"(4) show ?thesis by simp
      qed
      have high: "\<forall>i < length rs. ?i + (sz - ?h) \<le> i \<longrightarrow> c < range_start (rs ! i)"
      proof (cases "c > range_end (rs ! ?m)")
        case gt: True
        with "1.prems"(5) show ?thesis by simp
      next
        case le: False
        then have lt: "c < range_start (rs ! ?m)" using out by simp
        have "c < range_start (rs ! i)" if "i < length rs" "?m < i" for i
          using ranges_ok_less [OF "1.prems"(1) that(2,1)] ranges_ok_nth [OF "1.prems"(1) m] lt
          by linarith
        then have "c < range_start (rs ! i)" if "i < length rs" "?m \<le> i" for i
          using that lt by (cases "i = ?m") auto
        moreover have "?m \<le> ?i + (sz - ?h)" using le by simp
        ultimately show ?thesis using order_trans by blast
      qed
      have fits: "?i + (sz - ?h) \<le> length rs" using "1.prems"(3) True by (cases "c > range_end (rs ! ?m)") auto
      have "set_contains_loop rs c ?i (sz - ?h) = Some (\<exists>r \<in> set rs. in_range r c)"
      proof (rule "1.IH" [OF True refl refl m refl])
        show "\<not> (range_start (rs ! ?m) \<le> c \<and> c \<le> range_end (rs ! ?m))"
          using False by (simp only: in_range_def not_False_eq_True)
        show "0 < sz - ?h" using True by simp
      qed (rule "1.prems"(1) fits low high)+
      with True m False show ?thesis
        by (subst set_contains_loop.simps) (auto simp: in_range_def Let_def)
    qed
  qed
qed

lemma set_contains_correct:
  assumes "ranges_ok rs" and "rs \<noteq> []"
  shows "set_contains rs (length rs) c = Some (\<exists>r \<in> set rs. in_range r c)"
  unfolding set_contains_def using assms by (intro set_contains_loop_correct) auto

section \<open>The generated lexer functions\<close>

text \<open>
  A generated lexer is a \<open>switch\<close> over a state number. Each case optionally accepts a token
  (\<open>ACCEPT_TOKEN\<close>, always first) and then picks one action from the lookahead: consume it
  and go to a state (\<open>ADVANCE\<close>), consume it as white space (\<open>SKIP\<close>), or stop
  (\<open>END_STATE\<close>). A state with no case returns \<open>false\<close>.
\<close>

datatype lex_action = ADVANCE nat | SKIP nat | END_STATE

type_synonym lex_case = "bool \<Rightarrow> int \<Rightarrow> nat option \<times> lex_action"

definition ADVANCE_MAP :: "(nat \<times> nat) list \<Rightarrow> int \<Rightarrow> lex_action \<Rightarrow> lex_action" where
  "ADVANCE_MAP entries lookahead otherwise =
     (case find (\<lambda>(k, _). int k = lookahead) entries of
        Some (_, s) \<Rightarrow> ADVANCE s | None \<Rightarrow> otherwise)"

definition ACCEPT_TOKEN :: "'l lexer_ops \<Rightarrow> nat option \<Rightarrow> bool \<times> 'l \<Rightarrow> bool \<times> 'l" where
  "ACCEPT_TOKEN L symbol rl =
     (case symbol of None \<Rightarrow> rl
      | Some s \<Rightarrow> (True, lx_mark_end L (lx_set_result L (snd rl) s)))"

text \<open>
  \<open>START_LEXER\<close> and the jumps to \<open>next_state\<close>: read the lookahead, run the case, advance and
  go round again. The loop is not bounded by anything in the macros, so it is a
  \<open>partial_function\<close>.
\<close>

partial_function (option) lex_run ::
    "'l lexer_ops \<Rightarrow> (nat \<Rightarrow> lex_case option) \<Rightarrow> bool \<Rightarrow> nat \<Rightarrow> 'l \<Rightarrow> (bool \<times> 'l) option" where
  "lex_run L cases result state l =
     (case cases state of
        None \<Rightarrow> Some (False, l)
      | Some body \<Rightarrow>
          (let step = body (lx_eof L l) (lx_lookahead L l);
               rl = ACCEPT_TOKEN L (fst step) (result, l)
           in case snd step of
                ADVANCE s \<Rightarrow> lex_run L cases (fst rl) s (lx_advance L (snd rl) False)
              | SKIP s \<Rightarrow> lex_run L cases (fst rl) s (lx_advance L (snd rl) True)
              | END_STATE \<Rightarrow> Some rl))"

declare lex_run.simps [code]

definition lex_start ::
    "'l lexer_ops \<Rightarrow> (nat \<Rightarrow> lex_case option) \<Rightarrow> nat \<Rightarrow> 'l \<Rightarrow> (bool \<times> 'l) option" where
  "lex_start L cases state l = lex_run L cases False state l"

subsection \<open>Runs on a text\<close>

text \<open>
  At the end of the input \<open>advance\<close> has no effect, so a run ends only if the states reached
  there stop. \<open>stops_at_eof\<close> is the check on the table that makes every run end: at the end
  of the input a case stops, or moves to a case that does.
\<close>

definition eof_action :: "(nat \<Rightarrow> lex_case option) \<Rightarrow> nat \<Rightarrow> lex_action" where
  "eof_action cases s = (case cases s of None \<Rightarrow> END_STATE | Some body \<Rightarrow> snd (body True 0))"

definition stops_at_eof :: "(nat \<Rightarrow> lex_case option) \<Rightarrow> nat \<Rightarrow> bool" where
  "stops_at_eof cases s = (case eof_action cases s of
      END_STATE \<Rightarrow> True
    | ADVANCE s' \<Rightarrow> eof_action cases s' = END_STATE
    | SKIP s' \<Rightarrow> eof_action cases s' = END_STATE)"

context ts_lexer
begin

lemma view_ACCEPT_TOKEN:
  "view (snd (ACCEPT_TOKEN L tok (r, l))) =
     (case tok of None \<Rightarrow> view l | Some s \<Rightarrow> text_mark_end (text_set_result (view l) s))"
  by (simp add: ACCEPT_TOKEN_def split: option.splits)

lemma fst_ACCEPT_TOKEN: "fst (ACCEPT_TOKEN L tok (r, l)) = (r \<or> tok \<noteq> None)"
  by (auto simp: ACCEPT_TOKEN_def split: option.splits)

lemma t_input_ACCEPT_TOKEN: "t_input (view (snd (ACCEPT_TOKEN L tok (r, l)))) = t_input (view l)"
  by (simp add: view_ACCEPT_TOKEN split: option.splits)

lemma lex_run_eof_stop:
  "t_input (view l) = [] \<Longrightarrow> eof_action cases s = END_STATE \<Longrightarrow>
     lex_run L cases r0 s l \<noteq> None"
  by (subst lex_run.simps)
    (auto simp: eof_action_def text_eof_def Let_def split: option.splits)

lemma lex_run_eof:
  assumes e: "t_input (view l) = []" and s: "stops_at_eof cases s"
  shows "lex_run L cases r0 s l \<noteq> None"
proof (cases "cases s")
  case None
  then show ?thesis by (subst lex_run.simps) simp
next
  case (Some body)
  let ?rl = "ACCEPT_TOKEN L (fst (body True 0)) (r0, l)"
  have i: "t_input (view (lx_advance L (snd ?rl) sk)) = []" for sk
    using e by (simp add: t_input_ACCEPT_TOKEN)
  have "lex_run L cases (fst ?rl) s' (lx_advance L (snd ?rl) sk) \<noteq> None"
    if "snd (body True 0) = (if sk then SKIP s' else ADVANCE s')" for sk s'
    using that s Some i
    by (intro lex_run_eof_stop) (auto simp: stops_at_eof_def eof_action_def split: if_splits)
  from this [of False] this [of True] show ?thesis using e Some
    by (subst lex_run.simps) (auto simp: text_eof_def Let_def split: lex_action.splits)
qed

text \<open>Such a table makes every run end, whatever the state it starts in.\<close>

lemma lex_run_terminates:
  assumes "\<And>s. stops_at_eof cases s"
  shows "lex_run L cases r0 s l \<noteq> None"
proof (induction "t_input (view l)" arbitrary: r0 s l)
  case Nil
  then show ?case using assms by (metis lex_run_eof)
next
  case (Cons c cs)
  have ne: "t_input (view l) = c # cs" using Cons(2) by simp
  show ?case
  proof (cases "cases s")
    case None
    then show ?thesis by (subst lex_run.simps) simp
  next
    case (Some body)
    have "cs = t_input (view (lx_advance L (snd (ACCEPT_TOKEN L tok (r, l))) sk))" for tok r sk
      using ne by (simp add: t_input_ACCEPT_TOKEN)
    from Cons(1) [OF this] show ?thesis using Some ne
      by (subst lex_run.simps) (simp add: Let_def split: lex_action.splits)
  qed
qed

end

end
