(* ===== verification/TS_Properties.thy ===== *)
theory TS_Properties
  imports TS_Array TS_Lexer
begin

text \<open>
  The properties of the two tree-sitter headers: the growable array as a stack, as a sequence
  (splice) and as a sorted set, and the binary search over character ranges.
\<close>

section \<open>Arrays\<close>

fun pop_list :: "nat \<Rightarrow> 'a tarray \<Rightarrow> ('a list \<times> 'a tarray) option" where
  "pop_list 0 a = Some ([], a)"
| "pop_list (Suc n) a = Option.bind (array_pop a) (\<lambda>(x, a).
     Option.bind (pop_list n a) (\<lambda>(xs, a). Some (x # xs, a)))"

lemma pop_list_rep:
  "arr_rep a (xs @ ys) \<Longrightarrow> \<exists>a'. pop_list (length ys) a = Some (rev ys, a') \<and> arr_rep a' xs"
proof (induction ys arbitrary: a rule: rev_induct)
  case (snoc y ys)
  from arr.pop_rep [OF snoc.prems] obtain a1 where
    a1: "array_pop a = Some (y, a1)" "arr_rep a1 (xs @ ys)" by (auto simp: butlast_append)
  from snoc.IH [OF a1(2)] a1(1) show ?case by auto
qed simp

text \<open>C11: Pushing any list of elements onto an array that represents \<open>xs\<close> and popping as many
  gives them back in reverse order and leaves an array that represents \<open>xs\<close>: growing the
  block loses nothing, as long as the length stays below 2^32.\<close>

theorem array_push_pop_list:
  assumes "arr_rep a xs" and "length xs + length ys < 4294967296"
  shows "\<exists>a1 a2. push_list array_push a ys = Some a1 \<and> arr_rep a1 (xs @ ys) \<and>
    pop_list (length ys) a1 = Some (rev ys, a2) \<and> arr_rep a2 xs"
  using arr.push_list_rep [OF assms] pop_list_rep by blast

lemma array_push_pop_list_witness:
  "\<exists>a1 a2. push_list array_push array_new [3 :: nat, 4] = Some a1 \<and> arr_rep a1 ([] @ [3, 4]) \<and>
    pop_list (length [3 :: nat, 4]) a1 = Some (rev [3, 4], a2) \<and> arr_rep a2 []"
  by (rule array_push_pop_list [OF arr_rep_new]) simp

text \<open>C12: \<open>array_splice\<close> on an array that represents \<open>xs\<close> replaces \<open>old_count\<close> elements from
  \<open>index\<close> by the new ones (zeroed ones when the pointer is null) and moves the tail, provided
  the range is inside the array and the new length fits 32 bits. No access leaves the
  block.\<close>

theorem array_splice_replaces:
  assumes "arr_rep a xs" and "unat index + unat old_count \<le> length xs"
    and "length xs - unat old_count + unat new_count < 4294967296"
    and "length es = unat new_count"
    and "elements = Some (map Some es) \<or> elements = None \<and> es = replicate (unat new_count) zero"
  shows "\<exists>a'. array_splice zero a index old_count new_count elements = Some a' \<and>
    arr_rep a' (take (unat index) xs @ es @ drop (unat index + unat old_count) xs)"
  by (rule array_splice_rep [OF assms])

definition three :: "nat tarray" where
  "three = \<lparr>contents = Some [Some 1, Some 5, Some 9], asize = 3, capacity = 3\<rparr>"

lemma three_rep: "arr_rep three [1, 5, 9]"
  by (simp add: arr_rep_def three_def arr_cells_def)

lemma array_splice_replaces_witness:
  "\<exists>a'. array_splice 0 three 1 1 2 (Some [Some 6, Some 7]) = Some a' \<and> arr_rep a' [1, 6, 7, 9]"
  using array_splice_replaces [OF three_rep, of 1 1 2 "[6, 7]" "Some [Some 6, Some 7]" 0] by simp

lemma array_splice_outside:
  "arr_rep a xs \<Longrightarrow> unat index + unat old_count < 4294967296 \<Longrightarrow>
     length xs < unat index + unat old_count \<Longrightarrow>
     array_splice zero a index old_count new_count elements = None"
  by (simp add: array_splice_def Let_def word_le_nat_alt arr_rep_def unat_add_no_wrap)

text \<open>The differences of two signed keys that a C \<open>int\<close> holds.\<close>

definition int_difference :: "32 word \<Rightarrow> 32 word \<Rightarrow> bool" where
  "int_difference a b \<longleftrightarrow> - (2 ^ 31) \<le> sint a - sint b \<and> sint a - sint b < 2 ^ 31"

text \<open>C13: \<open>array_insert_sorted_by\<close> keeps an array sorted by a 32-bit signed key sorted, as long as
  no key of the array is so far from the new one that \<open>_compare_int\<close> overflows: an element whose
  key is present leaves the array as it is, any other is inserted at one place and nothing else
  moves relative to the rest. Where a comparison overflows there may be no result
  (\<open>insert_sorted_by_overflow\<close>).\<close>

theorem insert_sorted_keeps_order:
  assumes rep: "arr_rep a xs" and sorted: "sorted (map (sint \<circ> field) xs)"
    and room: "length xs + 1 < 4294967296"
    and near: "\<forall>x \<in> set xs. int_difference (field x) (field v)"
  shows "\<exists>a' ys. array_insert_sorted_by zero field a v = Some a' \<and>
    arr_rep a' ys \<and> sorted (map (sint \<circ> field) ys) \<and>
    (if field v \<in> field ` set xs then ys = xs
     else \<exists>us ws. xs = us @ ws \<and> ys = us @ v # ws)"
proof -
  let ?key = "\<lambda>x. sint (field x)"
  let ?cmp = "\<lambda>x. compare_int (field x)"
  have mono: "sorted (map (sgn \<circ> (\<lambda>x. ?key x - ?key v)) xs)"
    unfolding comp_def sorted_map
    by (rule sorted_wrt_mono_rel [OF _ sorted [unfolded sorted_map]])
      (auto simp: sgn_if)
  have cmp: "?cmp x (field v) = Some (?key x - ?key v)" if "x \<in> set xs" for x
    using near that by (simp add: compare_int_def int_difference_def Let_def)
  obtain i found where s: "array_search_sorted ?cmp a 0 (field v) = Some (i, found)"
    "unat i \<le> length xs" "if found then unat i < length xs \<and> ?key (xs ! unat i) - ?key v = 0
     else (\<forall>j < unat i. ?key (xs ! j) - ?key v < 0) \<and>
       (\<forall>j. unat i \<le> j \<and> j < length xs \<longrightarrow> 0 < ?key (xs ! j) - ?key v)"
    using array_search_sorted_rep [where compare = ?cmp and needle = "field v" and
          c = "\<lambda>x. ?key x - ?key v", OF rep cmp mono] by auto
  show ?thesis
  proof (cases found)
    case True
    then have "field (xs ! unat i) = field v" and "unat i < length xs"
      using s(3) by (auto intro: signed_word_eqI)
    then have "field v \<in> field ` set xs" by (metis imageI nth_mem)
    with True s(1) rep sorted show ?thesis by (auto simp: array_insert_sorted_by_def)
  next
    case False
    let ?us = "take (unat i) xs" and ?ws = "drop (unat i) xs"
    have us: "\<forall>x \<in> set ?us. ?key x < ?key v" using s(3) False by (auto simp: in_set_conv_nth)
    have ws: "\<forall>x \<in> set ?ws. ?key v < ?key x" using s(2,3) False by (auto simp: in_set_conv_nth)
    have xs: "xs = ?us @ ?ws" by simp
    have "set xs = set ?us \<union> set ?ws" by (metis append_take_drop_id set_append)
    with us ws have new: "field v \<notin> field ` set xs" by fastforce
    have "sorted (map (sint \<circ> field) ?us @ map (sint \<circ> field) ?ws)"
      using sorted xs by (metis map_append)
    then have "sorted (map (sint \<circ> field) (?us @ v # ?ws))"
      using us ws by (auto simp: sorted_append intro: less_imp_le)
    moreover obtain a' where "array_insert zero a i v = Some a'" "arr_rep a' (?us @ v # ?ws)"
      using array_insert_rep [OF rep s(2) room] by blast
    moreover have "\<exists>us ws. xs = us @ ws \<and> ?us @ v # ?ws = us @ v # ws" using xs by blast
    ultimately show ?thesis using s(1) False new
      by (intro exI [of _ a'] exI [of _ "?us @ v # ?ws"]) (simp add: array_insert_sorted_by_def)
  qed
qed

lemma insert_sorted_keeps_order_witness:
  "\<exists>a' ys. array_insert_sorted_by 0 (\<lambda>x. word_of_nat x - 7) three 6 = Some a' \<and> arr_rep a' ys \<and>
    sorted (map (sint \<circ> (\<lambda>x. word_of_nat x - 7 :: 32 word)) ys) \<and>
    (\<exists>us ws. [1, 5, 9] = us @ ws \<and> ys = us @ 6 # ws)"
  using insert_sorted_keeps_order [OF three_rep, of "\<lambda>x. word_of_nat x - 7 :: 32 word" 6 0]
  by (simp add: int_difference_def)

text \<open>The hypothesis on the keys is needed: with one element whose key is too far from the new
  one the macro evaluates an overflowing subtraction.\<close>

lemma insert_sorted_by_overflow:
  assumes "arr_rep a [x]" and "\<not> int_difference (field x) (field v)"
  shows "array_insert_sorted_by zero field a v = None"
proof -
  have "asize a = 1" using assms(1) by (simp add: arr_rep_def word_unat_eq_iff)
  moreover have "arr_read a 0 = Some x" using arr_read_rep [OF assms(1), of 0] by simp
  moreover have "compare_int (field x) (field v) = None"
    using assms(2) by (simp add: compare_int_def int_difference_def Let_def)
  ultimately show ?thesis
    by (simp add: array_insert_sorted_by_def array_search_sorted_def search_loop.simps)
qed

section \<open>Character sets\<close>

text \<open>C10: On a table of sorted, disjoint, non-empty ranges the binary search \<open>set_contains\<close>
  returns, reads only inside the table, and answers exactly whether some range contains the
  character.\<close>

theorem set_contains_member:
  assumes "ranges_ok rs" and "rs \<noteq> []"
  shows "set_contains rs (length rs) c = Some (\<exists>r \<in> set rs. in_range r c)"
  by (rule set_contains_correct [OF assms])

lemma set_contains_member_witness:
  "set_contains [\<lparr>range_start = 48, range_end = 57\<rparr>, \<lparr>range_start = 65, range_end = 90\<rparr>] 2 66 = Some True"
  using set_contains_member [of "[\<lparr>range_start = 48, range_end = 57\<rparr>, \<lparr>range_start = 65, range_end = 90\<rparr>]" 66]
  by (simp add: in_range_def numeral_2_eq_2)

end
