(* ===== verification/Mojo_Scanner.thy ===== *)
theory Mojo_Scanner
  imports TS_Array TS_Lexer
begin

text \<open>
  The external scanner of the Mojo grammar, \<^verbatim>\<open>grammars/tree-sitter-mojo/src/scanner.c\<close>:
  indentation tokens, string literals and MLIR fragments, and the serialisation of the
  scanner's two stacks. Definitions only; what they satisfy is proved in
  \<open>Mojo_Scanner_Proofs\<close> and \<open>Mojo_Serialize\<close>.

  A scanner function takes the lexer operations \<open>L\<close>, the scanner and the lexer state and
  returns the values it changes. \<open>None\<close> is a call that does not return: a loop without end,
  an access outside an array, a failed \<open>assert\<close>.
\<close>

unbundle bit_operations_syntax

section \<open>Tokens, delimiters and the scanner\<close>

datatype TokenType =
  NEWLINE | INDENT | DEDENT | STRING_START | STRING_CONTENT | ESCAPE_INTERPOLATION
| STRING_END | COMMENT | CLOSE_PAREN | CLOSE_BRACKET | CLOSE_BRACE | EXCEPT
| MLIR_BACKTICK | MLIR_IDENT | MLIR_NUMBER | MLIR_PUNCTUATION

fun token_number :: "TokenType \<Rightarrow> nat" where
  "token_number NEWLINE = 0"
| "token_number INDENT = 1"
| "token_number DEDENT = 2"
| "token_number STRING_START = 3"
| "token_number STRING_CONTENT = 4"
| "token_number ESCAPE_INTERPOLATION = 5"
| "token_number STRING_END = 6"
| "token_number COMMENT = 7"
| "token_number CLOSE_PAREN = 8"
| "token_number CLOSE_BRACKET = 9"
| "token_number CLOSE_BRACE = 10"
| "token_number EXCEPT = 11"
| "token_number MLIR_BACKTICK = 12"
| "token_number MLIR_IDENT = 13"
| "token_number MLIR_NUMBER = 14"
| "token_number MLIR_PUNCTUATION = 15"

text \<open>The enum \<open>Flags\<close>, and the struct \<open>Delimiter\<close> with its one \<open>char\<close> of flags.\<close>

definition SingleQuote :: u8 where "SingleQuote = push_bit 0 1"
definition DoubleQuote :: u8 where "DoubleQuote = push_bit 1 1"
definition BackQuote :: u8 where "BackQuote = push_bit 2 1"
definition Raw :: u8 where "Raw = push_bit 3 1"
definition Format :: u8 where "Format = push_bit 4 1"
definition Triple :: u8 where "Triple = push_bit 5 1"
definition Bytes :: u8 where "Bytes = push_bit 6 1"

record Delimiter =
  flags :: u8

definition new_delimiter :: Delimiter where
  "new_delimiter = \<lparr>flags = 0\<rparr>"

definition is_format :: "Delimiter \<Rightarrow> bool" where
  "is_format delimiter \<longleftrightarrow> flags delimiter AND Format \<noteq> 0"

definition is_raw :: "Delimiter \<Rightarrow> bool" where
  "is_raw delimiter \<longleftrightarrow> flags delimiter AND Raw \<noteq> 0"

definition is_triple :: "Delimiter \<Rightarrow> bool" where
  "is_triple delimiter \<longleftrightarrow> flags delimiter AND Triple \<noteq> 0"

definition is_bytes :: "Delimiter \<Rightarrow> bool" where
  "is_bytes delimiter \<longleftrightarrow> flags delimiter AND Bytes \<noteq> 0"

text \<open>The quote characters: \<open>'\<close> is code 39, the double quote 34, the backquote 96.\<close>

abbreviation "ch_squote \<equiv> ch CHR 0x27"
abbreviation "ch_dquote \<equiv> ch CHR 0x22"
abbreviation "ch_bquote \<equiv> ch CHR 0x60"
abbreviation "ch_backslash \<equiv> ch CHR 0x5C"
abbreviation "ch_newline \<equiv> ch CHR 0x0A"
abbreviation "ch_return \<equiv> ch CHR 0x0D"
abbreviation "ch_tab \<equiv> ch CHR 0x09"
abbreviation "ch_formfeed \<equiv> ch CHR 0x0C"

definition end_character :: "Delimiter \<Rightarrow> int" where
  "end_character delimiter =
     (if flags delimiter AND SingleQuote \<noteq> 0 then ch_squote
      else if flags delimiter AND DoubleQuote \<noteq> 0 then ch_dquote
      else if flags delimiter AND BackQuote \<noteq> 0 then ch_bquote
      else 0)"

definition set_format :: "Delimiter \<Rightarrow> Delimiter" where
  "set_format delimiter = delimiter\<lparr>flags := flags delimiter OR Format\<rparr>"

definition set_raw :: "Delimiter \<Rightarrow> Delimiter" where
  "set_raw delimiter = delimiter\<lparr>flags := flags delimiter OR Raw\<rparr>"

definition set_triple :: "Delimiter \<Rightarrow> Delimiter" where
  "set_triple delimiter = delimiter\<lparr>flags := flags delimiter OR Triple\<rparr>"

definition set_bytes :: "Delimiter \<Rightarrow> Delimiter" where
  "set_bytes delimiter = delimiter\<lparr>flags := flags delimiter OR Bytes\<rparr>"

definition set_end_character :: "Delimiter \<Rightarrow> int \<Rightarrow> Delimiter option" where
  "set_end_character delimiter character =
     (if character = ch_squote then Some (delimiter\<lparr>flags := flags delimiter OR SingleQuote\<rparr>)
      else if character = ch_dquote then Some (delimiter\<lparr>flags := flags delimiter OR DoubleQuote\<rparr>)
      else if character = ch_bquote then Some (delimiter\<lparr>flags := flags delimiter OR BackQuote\<rparr>)
      else None)"

record Scanner =
  indents :: "u16 tarray"
  delimiters :: "Delimiter tarray"
  inside_interpolated_string :: bool

definition advance :: "'l lexer_ops \<Rightarrow> 'l \<Rightarrow> 'l" where
  "advance L l = lx_advance L l False"

definition skip :: "'l lexer_ops \<Rightarrow> 'l \<Rightarrow> 'l" where
  "skip L l = lx_advance L l True"

text \<open>The two assignments that end almost every successful branch.\<close>

definition result_symbol :: "'l lexer_ops \<Rightarrow> TokenType \<Rightarrow> 'l \<Rightarrow> 'l" where
  "result_symbol L tok l = lx_set_result L l (token_number tok)"

text \<open>
  A section of \<open>scan\<close> either returns from the function (its value, the scanner, the lexer) or
  falls through to the next section.
\<close>

datatype ('l, 'a) flow = Return bool Scanner 'l | Through 'a

section \<open>MLIR fragments\<close>

definition error_recovery_mode :: "(TokenType \<Rightarrow> bool) \<Rightarrow> bool" where
  "error_recovery_mode valid_symbols \<longleftrightarrow> valid_symbols STRING_CONTENT \<and> valid_symbols INDENT"

definition within_brackets :: "(TokenType \<Rightarrow> bool) \<Rightarrow> bool" where
  "within_brackets valid_symbols \<longleftrightarrow>
     valid_symbols CLOSE_BRACE \<or> valid_symbols CLOSE_PAREN \<or> valid_symbols CLOSE_BRACKET"

definition mlir_interior :: "(TokenType \<Rightarrow> bool) \<Rightarrow> bool" where
  "mlir_interior valid_symbols \<longleftrightarrow>
     valid_symbols MLIR_IDENT \<or> valid_symbols MLIR_NUMBER \<or> valid_symbols MLIR_PUNCTUATION"

definition ident_start :: "int \<Rightarrow> bool" where
  "ident_start c \<longleftrightarrow> c = ch CHR ''_'' \<or> (c \<ge> ch CHR ''A'' \<and> c \<le> ch CHR ''Z'') \<or>
     (c \<ge> ch CHR ''a'' \<and> c \<le> ch CHR ''z'')"

definition digit :: "int \<Rightarrow> bool" where
  "digit c \<longleftrightarrow> c \<ge> ch CHR ''0'' \<and> c \<le> ch CHR ''9''"

definition scan_mlir ::
    "'l lexer_ops \<Rightarrow> (TokenType \<Rightarrow> bool) \<Rightarrow> 'l \<Rightarrow> (bool \<times> 'l) option" where
  "scan_mlir L valid_symbols l = do {
     l \<leftarrow> (if mlir_interior valid_symbols
          then advance_while L (\<lambda>c. c = ch CHR '' '' \<or> c = ch_tab) True l
          else Some l);
     let c = lx_lookahead L l;
     if c = ch_bquote \<and> valid_symbols MLIR_BACKTICK then
       Some (True, result_symbol L MLIR_BACKTICK (lx_mark_end L (advance L l)))
     else if mlir_interior valid_symbols then
       (if ident_start c then do {
          l \<leftarrow> advance_while L (\<lambda>d. ident_start d \<or> digit d) False l;
          Some (True, result_symbol L MLIR_IDENT (lx_mark_end L l)) }
        else if digit c then do {
          l \<leftarrow> advance_while L digit False l;
          Some (True, result_symbol L MLIR_NUMBER (lx_mark_end L l)) }
        else if c \<noteq> 0 \<and> c \<noteq> ch_bquote \<and> c \<noteq> ch_newline \<and> c \<noteq> ch_return then
          Some (True, result_symbol L MLIR_PUNCTUATION (lx_mark_end L (advance L l)))
        else Some (False, l))
     else Some (False, l) }"

section \<open>String contents\<close>

definition scan_escape_interpolation ::
    "'l lexer_ops \<Rightarrow> (TokenType \<Rightarrow> bool) \<Rightarrow> Scanner \<Rightarrow> 'l \<Rightarrow> ('l, 'l) flow option" where
  "scan_escape_interpolation L valid_symbols scanner l =
     (if valid_symbols ESCAPE_INTERPOLATION \<and> asize (delimiters scanner) > 0 \<and>
         (lx_lookahead L l = ch CHR ''{'' \<or> lx_lookahead L l = ch CHR ''}'') \<and>
         \<not> error_recovery_mode valid_symbols
      then do {
        delimiter \<leftarrow> array_back (delimiters scanner);
        if is_format delimiter then
          (let l = lx_mark_end L l;
               is_left_brace = (lx_lookahead L l = ch CHR ''{'');
               l = advance L l
           in if (lx_lookahead L l = ch CHR ''{'' \<and> is_left_brace) \<or>
                 (lx_lookahead L l = ch CHR ''}'' \<and> \<not> is_left_brace)
              then Some (Return True scanner
                     (result_symbol L ESCAPE_INTERPOLATION (lx_mark_end L (advance L l))))
              else Some (Return False scanner l))
        else Some (Through l) }
      else Some (Through l))"

text \<open>In a raw string: step over the backslash, an escaped quote or backslash, a newline.\<close>

definition raw_backslash :: "'l lexer_ops \<Rightarrow> Delimiter \<Rightarrow> 'l \<Rightarrow> 'l" where
  "raw_backslash L delimiter l =
     (let l = advance L l;
          l = (if lx_lookahead L l = end_character delimiter \<or> lx_lookahead L l = ch_backslash
               then advance L l else l)
      in if lx_lookahead L l = ch_return then
           (let l = advance L l
            in if lx_lookahead L l = ch_newline then advance L l else l)
         else if lx_lookahead L l = ch_newline then advance L l
         else l)"

text \<open>The end of the string: the delimiter is popped and the token is \<open>STRING_END\<close>.\<close>

definition close_string :: "'l lexer_ops \<Rightarrow> Scanner \<Rightarrow> 'l \<Rightarrow> ('l, 'l) flow option" where
  "close_string L scanner l = do {
     (_, ds) \<leftarrow> array_pop (delimiters scanner);
     Some (Return True (scanner\<lparr>delimiters := ds, inside_interpolated_string := False\<rparr>)
             (result_symbol L STRING_END (lx_mark_end L (advance L l)))) }"

definition scan_end_character ::
    "'l lexer_ops \<Rightarrow> Scanner \<Rightarrow> Delimiter \<Rightarrow> bool \<Rightarrow> 'l \<Rightarrow> ('l, 'l) flow option" where
  "scan_end_character L scanner delimiter has_content l =
     (let end_char = end_character delimiter in
      if is_triple delimiter then
        (let l = advance L (lx_mark_end L l) in
         if lx_lookahead L l = end_char then
           (let l = advance L l in
            if lx_lookahead L l = end_char then
              (if has_content then Some (Return True scanner (result_symbol L STRING_CONTENT l))
               else close_string L scanner l)
            else Some (Return True scanner (result_symbol L STRING_CONTENT (lx_mark_end L l))))
         else Some (Return True scanner (result_symbol L STRING_CONTENT (lx_mark_end L l))))
      else if has_content then
        Some (Return True scanner (lx_mark_end L (result_symbol L STRING_CONTENT l)))
      else close_string L scanner l)"

partial_function (option) string_content_loop ::
    "'l lexer_ops \<Rightarrow> Scanner \<Rightarrow> Delimiter \<Rightarrow> bool \<Rightarrow> bool \<Rightarrow> 'l \<Rightarrow> ('l, 'l) flow option" where
  "string_content_loop L scanner delimiter advanced_once has_content l =
     (let c = lx_lookahead L l in
      if c = 0 then Some (Through l)
      else if (advanced_once \<or> c = ch CHR ''{'' \<or> c = ch CHR ''}'') \<and> is_format delimiter then
        Some (Return has_content scanner (result_symbol L STRING_CONTENT (lx_mark_end L l)))
      else if c = ch_backslash then
        (if is_raw delimiter then
           string_content_loop L scanner delimiter advanced_once has_content
             (raw_backslash L delimiter l)
         else if is_bytes delimiter then
           (let l = advance L (lx_mark_end L l) in
            if lx_lookahead L l = ch CHR ''N'' \<or> lx_lookahead L l = ch CHR ''u'' \<or>
               lx_lookahead L l = ch CHR ''U'' then
              string_content_loop L scanner delimiter advanced_once True
                (advance L (advance L l))
            else Some (Return has_content scanner (result_symbol L STRING_CONTENT l)))
         else Some (Return has_content scanner (result_symbol L STRING_CONTENT (lx_mark_end L l))))
      else if c = end_character delimiter then
        scan_end_character L scanner delimiter has_content l
      else if c = ch_newline \<and> has_content \<and> \<not> is_triple delimiter then
        Some (Return False scanner l)
      else string_content_loop L scanner delimiter advanced_once True (advance L l))"

declare string_content_loop.simps [code]

definition scan_string_content ::
    "'l lexer_ops \<Rightarrow> (TokenType \<Rightarrow> bool) \<Rightarrow> Scanner \<Rightarrow> bool \<Rightarrow> 'l \<Rightarrow> ('l, 'l) flow option" where
  "scan_string_content L valid_symbols scanner advanced_once l =
     (if valid_symbols STRING_CONTENT \<and> asize (delimiters scanner) > 0 \<and>
         \<not> error_recovery_mode valid_symbols
      then do {
        delimiter \<leftarrow> array_back (delimiters scanner);
        string_content_loop L scanner delimiter advanced_once advanced_once l }
      else Some (Through l))"

section \<open>White space, comments and indentation\<close>

text \<open>
  What the loop has measured when it breaks: whether a line ended, the indentation of the
  current line (a \<open>uint16_t\<close>, so it wraps), and the indentation of the first comment (-1 for
  none).
\<close>

record layout =
  found_end_of_line :: bool
  indent_length :: u16
  first_comment_indent_length :: int

partial_function (option) layout_loop ::
    "'l lexer_ops \<Rightarrow> (TokenType \<Rightarrow> bool) \<Rightarrow> Scanner \<Rightarrow> layout \<Rightarrow> 'l \<Rightarrow>
       ('l, layout \<times> 'l) flow option" where
  "layout_loop L valid_symbols scanner y l =
     (let c = lx_lookahead L l in
      if c = ch_newline then
        layout_loop L valid_symbols scanner
          (y\<lparr>found_end_of_line := True, indent_length := 0\<rparr>) (skip L l)
      else if c = ch CHR '' '' then
        layout_loop L valid_symbols scanner (y\<lparr>indent_length := indent_length y + 1\<rparr>) (skip L l)
      else if c = ch_return \<or> c = ch_formfeed then
        layout_loop L valid_symbols scanner (y\<lparr>indent_length := 0\<rparr>) (skip L l)
      else if c = ch_tab then
        layout_loop L valid_symbols scanner (y\<lparr>indent_length := indent_length y + 8\<rparr>) (skip L l)
      else if c = ch CHR ''#'' \<and> (valid_symbols INDENT \<or> valid_symbols DEDENT \<or>
                valid_symbols NEWLINE \<or> valid_symbols EXCEPT) then
        (if \<not> found_end_of_line y then Some (Return False scanner l)
         else do {
           l \<leftarrow> advance_while L (\<lambda>d. d \<noteq> 0 \<and> d \<noteq> ch_newline) True l;
           layout_loop L valid_symbols scanner
             (y\<lparr>first_comment_indent_length :=
                  (if first_comment_indent_length y = -1 then int (unat (indent_length y))
                   else first_comment_indent_length y),
                indent_length := 0\<rparr>) (skip L l) })
      else if c = ch_backslash then
        (let l = skip L l;
             l = (if lx_lookahead L l = ch_return then skip L l else l)
         in if lx_lookahead L l = ch_newline \<or> lx_eof L l then
              layout_loop L valid_symbols scanner y (skip L l)
            else Some (Return False scanner l))
      else if lx_eof L l then
        Some (Through (y\<lparr>indent_length := 0, found_end_of_line := True\<rparr>, l))
      else Some (Through (y, l)))"

declare layout_loop.simps [code]

definition layout_init :: layout where
  "layout_init =
     \<lparr>found_end_of_line = False, indent_length = 0, first_comment_indent_length = -1\<rparr>"

definition scan_line_end ::
    "'l lexer_ops \<Rightarrow> (TokenType \<Rightarrow> bool) \<Rightarrow> Scanner \<Rightarrow> layout \<Rightarrow> 'l \<Rightarrow> ('l, 'l) flow option" where
  "scan_line_end L valid_symbols scanner y l =
     (if \<not> found_end_of_line y then Some (Through l)
      else
        (let newline =
           (if valid_symbols NEWLINE \<and> \<not> error_recovery_mode valid_symbols
            then Some (Return True scanner (result_symbol L NEWLINE l))
            else Some (Through l))
         in if asize (indents scanner) > 0 then do {
              current_indent_length \<leftarrow> array_back (indents scanner);
              if valid_symbols INDENT \<and> indent_length y > current_indent_length then do {
                is \<leftarrow> array_push (indents scanner) (indent_length y);
                Some (Return True (scanner\<lparr>indents := is\<rparr>) (result_symbol L INDENT l)) }
              else
                (let next_tok_is_string_start =
                   (lx_lookahead L l = ch_dquote \<or> lx_lookahead L l = ch_squote \<or>
                    lx_lookahead L l = ch_bquote)
                 in if (valid_symbols DEDENT \<or>
                        (\<not> valid_symbols NEWLINE \<and>
                         \<not> (valid_symbols STRING_START \<and> next_tok_is_string_start) \<and>
                         \<not> within_brackets valid_symbols)) \<and>
                       indent_length y < current_indent_length \<and>
                       \<not> inside_interpolated_string scanner \<and>
                       first_comment_indent_length y < int (unat current_indent_length)
                    then do {
                      (_, is) \<leftarrow> array_pop (indents scanner);
                      Some (Return True (scanner\<lparr>indents := is\<rparr>) (result_symbol L DEDENT l)) }
                    else newline) }
            else newline))"

section \<open>String starts\<close>

partial_function (option) string_flags_loop ::
    "'l lexer_ops \<Rightarrow> Delimiter \<Rightarrow> bool \<Rightarrow> 'l \<Rightarrow> (Delimiter \<times> bool \<times> 'l) option" where
  "string_flags_loop L delimiter has_flags l =
     (let c = lx_lookahead L l in
      if c = 0 then Some (delimiter, has_flags, l)
      else if c = ch CHR ''f'' \<or> c = ch CHR ''F'' \<or> c = ch CHR ''t'' \<or> c = ch CHR ''T'' then
        string_flags_loop L (set_format delimiter) True (advance L l)
      else if c = ch CHR ''r'' \<or> c = ch CHR ''R'' then
        string_flags_loop L (set_raw delimiter) True (advance L l)
      else if c = ch CHR ''b'' \<or> c = ch CHR ''B'' then
        string_flags_loop L (set_bytes delimiter) True (advance L l)
      else if c \<noteq> ch CHR ''u'' \<and> c \<noteq> ch CHR ''U'' then Some (delimiter, has_flags, l)
      else string_flags_loop L delimiter True (advance L l))"

declare string_flags_loop.simps [code]

text \<open>The branches for the two quotes that can be tripled; they differ in the character only.\<close>

definition open_quote ::
    "'l lexer_ops \<Rightarrow> Delimiter \<Rightarrow> int \<Rightarrow> 'l \<Rightarrow> (Delimiter \<times> 'l) option" where
  "open_quote L delimiter q l = do {
     delimiter \<leftarrow> set_end_character delimiter q;
     let l = lx_mark_end L (advance L l);
     if lx_lookahead L l = q then
       (let l = advance L l in
        if lx_lookahead L l = q then Some (set_triple delimiter, lx_mark_end L (advance L l))
        else Some (delimiter, l))
     else Some (delimiter, l) }"

definition scan_string_start ::
    "'l lexer_ops \<Rightarrow> (TokenType \<Rightarrow> bool) \<Rightarrow> Scanner \<Rightarrow> layout \<Rightarrow> 'l \<Rightarrow>
       (bool \<times> Scanner \<times> 'l) option" where
  "scan_string_start L valid_symbols scanner y l =
     (if first_comment_indent_length y = -1 \<and> valid_symbols STRING_START then do {
        (delimiter, has_flags, l) \<leftarrow> string_flags_loop L new_delimiter False l;
        (delimiter, l) \<leftarrow>
          (if lx_lookahead L l = ch_bquote then do {
             delimiter \<leftarrow> set_end_character delimiter ch_bquote;
             Some (delimiter, lx_mark_end L (advance L l)) }
           else if lx_lookahead L l = ch_squote then open_quote L delimiter ch_squote l
           else if lx_lookahead L l = ch_dquote then open_quote L delimiter ch_dquote l
           else Some (delimiter, l));
        if end_character delimiter \<noteq> 0 then do {
          ds \<leftarrow> array_push (delimiters scanner) delimiter;
          Some (True, scanner\<lparr>delimiters := ds, inside_interpolated_string := is_format delimiter\<rparr>,
                result_symbol L STRING_START l) }
        else Some (False, scanner, l) }
      else Some (False, scanner, l))"

section \<open>The scan function\<close>

definition tree_sitter_mojo_external_scanner_scan ::
    "'l lexer_ops \<Rightarrow> Scanner \<Rightarrow> 'l \<Rightarrow> (TokenType \<Rightarrow> bool) \<Rightarrow> (bool \<times> Scanner \<times> 'l) option" where
  "tree_sitter_mojo_external_scanner_scan L scanner l valid_symbols =
     (if \<not> error_recovery_mode valid_symbols \<and>
         (mlir_interior valid_symbols \<or> valid_symbols MLIR_BACKTICK)
      then do {
        (r, l) \<leftarrow> scan_mlir L valid_symbols l;
        Some (r, scanner, l) }
      else do {
        f1 \<leftarrow> scan_escape_interpolation L valid_symbols scanner l;
        case f1 of Return r sc l \<Rightarrow> Some (r, sc, l)
        | Through l \<Rightarrow> do {
            f2 \<leftarrow> scan_string_content L valid_symbols scanner False l;
            case f2 of Return r sc l \<Rightarrow> Some (r, sc, l)
            | Through l \<Rightarrow> do {
                f3 \<leftarrow> layout_loop L valid_symbols scanner layout_init (lx_mark_end L l);
                case f3 of Return r sc l \<Rightarrow> Some (r, sc, l)
                | Through yl \<Rightarrow> do {
                    f4 \<leftarrow> scan_line_end L valid_symbols scanner (fst yl) (snd yl);
                    case f4 of Return r sc l \<Rightarrow> Some (r, sc, l)
                    | Through l \<Rightarrow> scan_string_start L valid_symbols scanner (fst yl) l } } } })"

section \<open>Serialisation\<close>

definition TREE_SITTER_SERIALIZATION_BUFFER_SIZE :: nat where
  "TREE_SITTER_SERIALIZATION_BUFFER_SIZE = 1024"

text \<open>The buffer is a block of bytes; a write outside it is \<open>None\<close>.\<close>

function serialize_indents ::
    "u16 tarray \<Rightarrow> u32 \<Rightarrow> nat \<Rightarrow> u8 cells \<Rightarrow> (nat \<times> u8 cells) option" where
  "serialize_indents is iter sz buffer =
     (if iter < asize is \<and> sz < TREE_SITTER_SERIALIZATION_BUFFER_SIZE then do {
        indent_value \<leftarrow> array_get is iter;
        buffer \<leftarrow> block_write buffer sz (ucast (indent_value AND 0xFF));
        buffer \<leftarrow> block_write buffer (sz + 1) (ucast (drop_bit 8 indent_value AND 0xFF));
        serialize_indents is (iter + 1) (sz + 2) buffer }
      else Some (sz, buffer))"
  by pat_completeness auto
termination
  by (relation "measure (\<lambda>(_, _, sz, _). 1024 - sz)")
    (auto simp: TREE_SITTER_SERIALIZATION_BUFFER_SIZE_def)

declare serialize_indents.simps [simp del]

definition tree_sitter_mojo_external_scanner_serialize ::
    "Scanner \<Rightarrow> u8 cells \<Rightarrow> (nat \<times> u8 cells) option" where
  "tree_sitter_mojo_external_scanner_serialize scanner buffer = do {
     buffer \<leftarrow> block_write buffer 0 (of_bool (inside_interpolated_string scanner));
     let delimiter_count = unat (asize (delimiters scanner));
     let delimiter_count = (if delimiter_count > 255 then 255 else delimiter_count);
     buffer \<leftarrow> block_write buffer 1 (of_nat delimiter_count);
     buffer \<leftarrow> (if delimiter_count > 0 then do {
                  bytes \<leftarrow> block_slice (arr_cells (delimiters scanner)) 0 delimiter_count;
                  block_copy_in buffer 2 (map (map_option flags) bytes) }
                else Some buffer);
     serialize_indents (indents scanner) 1 (2 + delimiter_count) buffer }"

function deserialize_indents ::
    "u16 tarray \<Rightarrow> nat \<Rightarrow> nat \<Rightarrow> u8 cells \<Rightarrow> u16 tarray option" where
  "deserialize_indents is sz len buffer =
     (if sz + 1 < len then do {
        lo \<leftarrow> block_read buffer sz;
        hi \<leftarrow> block_read buffer (sz + 1);
        is \<leftarrow> array_push is (ucast lo OR push_bit 8 (ucast hi));
        deserialize_indents is (sz + 2) len buffer }
      else Some is)"
  by pat_completeness auto
termination
  by (relation "measure (\<lambda>(_, sz, len, _). len - sz)") auto

declare deserialize_indents.simps [simp del]

text \<open>
  \<open>scanner->delimiters.size = delimiter_count\<close> and the \<open>memcpy\<close> that fills the cells it
  announces.
\<close>

definition deserialize_delimiters ::
    "Delimiter tarray \<Rightarrow> nat \<Rightarrow> nat \<Rightarrow> u8 cells \<Rightarrow> Delimiter tarray option" where
  "deserialize_delimiters ds sz delimiter_count buffer =
     (if delimiter_count > 0 then do {
        let ds = array_reserve ds (of_nat delimiter_count);
        bytes \<leftarrow> block_slice buffer sz delimiter_count;
        cs \<leftarrow> block_copy_in (arr_cells ds) 0 (map (map_option (\<lambda>b. \<lparr>flags = b\<rparr>)) bytes);
        Some (ds\<lparr>contents := Some cs, asize := of_nat delimiter_count\<rparr>) }
      else Some ds)"

definition tree_sitter_mojo_external_scanner_deserialize ::
    "Scanner \<Rightarrow> u8 cells \<Rightarrow> nat \<Rightarrow> Scanner option" where
  "tree_sitter_mojo_external_scanner_deserialize scanner buffer len = do {
     let scanner = scanner\<lparr>delimiters := array_delete (delimiters scanner)\<rparr>;
     is \<leftarrow> array_push (array_delete (indents scanner)) 0;
     let scanner = scanner\<lparr>indents := is\<rparr>;
     if len > 0 then do {
       b0 \<leftarrow> block_read buffer 0;
       b1 \<leftarrow> block_read buffer 1;
       let delimiter_count = unat b1;
       ds \<leftarrow> deserialize_delimiters (delimiters scanner) 2 delimiter_count buffer;
       is \<leftarrow> deserialize_indents (indents scanner) (2 + delimiter_count) len buffer;
       Some (scanner\<lparr>inside_interpolated_string := (b0 \<noteq> 0), delimiters := ds, indents := is\<rparr>) }
     else Some scanner }"

definition tree_sitter_mojo_external_scanner_create :: "Scanner option" where
  "tree_sitter_mojo_external_scanner_create =
     tree_sitter_mojo_external_scanner_deserialize
       \<lparr>indents = array_init array_new, delimiters = array_init array_new,
        inside_interpolated_string = False\<rparr> [] 0"

text \<open>\<open>destroy\<close> releases both blocks before the scanner itself; this is the scanner it frees.\<close>

definition tree_sitter_mojo_external_scanner_destroy :: "Scanner \<Rightarrow> Scanner" where
  "tree_sitter_mojo_external_scanner_destroy scanner =
     scanner\<lparr>indents := array_delete (indents scanner),
             delimiters := array_delete (delimiters scanner)\<rparr>"

end
