(* ===== verification/Mojo_Serialize.thy ===== *)
theory Mojo_Serialize
  imports Mojo_Scanner
begin

text \<open>
  What \<open>serialize\<close> writes and what \<open>deserialize\<close> reads back. The two stacks of a scanner are
  specified as lists (\<open>scanner_rep\<close>); a buffer is 1024 cells, the size the runtime passes
  (\<open>TREE_SITTER_SERIALIZATION_BUFFER_SIZE\<close>).
\<close>

definition scanner_rep :: "Scanner \<Rightarrow> Delimiter list \<Rightarrow> u16 list \<Rightarrow> bool" where
  "scanner_rep sc ds is \<longleftrightarrow> arr_rep (delimiters sc) ds \<and> arr_rep (indents sc) is"

lemma Delimiter_eta [simp]: "\<lparr>flags = flags d\<rparr> = d"
  by (cases d) simp

section \<open>Sixteen-bit values as two bytes\<close>

definition le16 :: "u16 \<Rightarrow> u8 list" where
  "le16 v = [ucast (v AND 0xFF), ucast (drop_bit 8 v AND 0xFF)]"

fun u16s_of :: "u8 list \<Rightarrow> u16 list" where
  "u16s_of (lo # hi # bs) = (ucast lo OR push_bit 8 (ucast hi)) # u16s_of bs"
| "u16s_of _ = []"

lemma length_le16 [simp]: "length (le16 v) = 2"
  by (simp add: le16_def)

lemma length_concat_le16 [simp]: "length (concat (map le16 vs)) = 2 * length vs"
  by (induction vs) auto

lemma le16_recombine:
  "ucast (ucast (v AND 0xFF) :: u8) OR push_bit 8 (ucast (ucast (drop_bit 8 v AND 0xFF) :: u8)) = (v :: u16)"
proof (rule bit_word_eqI)
  fix n assume "n < LENGTH(16)"
  then have n: "n < 16" by simp
  have m: "(0xFF :: u16) = mask 8" by (simp add: mask_eq_exp_minus_1)
  show "bit (ucast (ucast (v AND 0xFF) :: u8) OR
      push_bit 8 (ucast (ucast (drop_bit 8 v AND 0xFF) :: u8)) :: u16) n = bit v n"
    using n unfolding m by (auto simp: bit_simps)
qed

lemma u16s_of_le16 [simp]: "u16s_of (le16 v @ bs) = v # u16s_of bs"
  by (simp add: le16_def le16_recombine)

lemma u16s_of_concat_le16 [simp]: "u16s_of (concat (map le16 vs)) = vs"
  by (induction vs) auto

lemma length_u16s_of: "length (u16s_of bs) = length bs div 2"
  by (induction bs rule: u16s_of.induct) auto

section \<open>Writing the indents\<close>

lemma write_two_bytes:
  assumes "take n buf = map Some bs" and "length bs = n" and "n + 1 < length buf"
  shows "\<exists>buf'. Option.bind (block_write buf n a) (\<lambda>b1. block_write b1 (n + 1) b) = Some buf' \<and>
    length buf' = length buf \<and> take (n + 2) buf' = map Some (bs @ [a, b])"
proof -
  have "take (Suc n) (buf[n := Some a]) = map Some (bs @ [a])"
    using assms by (simp add: take_list_update_snoc)
  then have "take (Suc (Suc n)) (buf[n := Some a, Suc n := Some b]) = map Some (bs @ [a]) @ [Some b]"
    using assms by (intro take_list_update_snoc) auto
  then show ?thesis using assms by (simp add: block_write_def)
qed

text \<open>
  The loop on a buffer of 1024 bytes: \<open>vs\<close> are the values still to be written. It fails
  exactly when an odd number of bytes is left and there are more values than fit: the test
  \<open>size < 1024\<close> then lets it write a value of which only the first byte fits.
\<close>

lemma serialize_indents_rep:
  assumes "arr_rep ia is" and "unat iter \<le> length is" and "length buf = 1024"
    and "take sz buf = map Some bs" and "length bs = sz" and "sz \<le> 1024"
    and "vs = drop (unat iter) is"
  shows "if odd sz \<and> 1024 - sz < 2 * length vs
    then serialize_indents ia iter sz buf = None
    else (let k = min (length vs) ((1024 - sz) div 2) in
      \<exists>buf'. serialize_indents ia iter sz buf = Some (sz + 2 * k, buf') \<and> length buf' = 1024 \<and>
        take (sz + 2 * k) buf' = map Some (bs @ concat (map le16 (take k vs))))"
  using assms
proof (induction "1024 - sz" arbitrary: iter sz buf bs vs rule: less_induct)
  case less
  have asz: "unat (asize ia) = length is" using less.prems(1) by (simp add: arr_rep_def)
  have vs: "vs = drop (unat iter) is" by (rule less.prems(7))
  show ?case
  proof (cases "iter < asize ia \<and> sz < 1024")
    case False
    then have "vs = [] \<or> sz = 1024"
      using asz less.prems(2,6) vs by (auto simp: word_less_nat_alt)
    moreover have "serialize_indents ia iter sz buf = Some (sz, buf)"
      using False by (subst serialize_indents.simps)
        (auto simp: TREE_SITTER_SERIALIZATION_BUFFER_SIZE_def)
    ultimately show ?thesis using less.prems(3-6) by auto
  next
    case True
    then have i: "unat iter < length is" and sz: "sz < 1024"
      using asz by (simp_all add: word_less_nat_alt)
    let ?v = "is ! unat iter"
    have vs_Cons: "vs = ?v # drop (Suc (unat iter)) is"
      using i vs by (simp add: Cons_nth_drop_Suc)
    have get: "array_get ia iter = Some ?v" by (rule array_get_rep [OF less.prems(1) i])
    have suc: "unat (iter + 1) = Suc (unat iter)"
      using i arr_rep_length [OF less.prems(1)] by (subst unat_succ_no_wrap) auto
    show ?thesis
    proof (cases "sz = 1023")
      case at_end: True
      have "serialize_indents ia iter sz buf = None"
        using True get at_end less.prems(3) by (subst serialize_indents.simps)
          (simp add: TREE_SITTER_SERIALIZATION_BUFFER_SIZE_def block_write_def)
      then show ?thesis using at_end vs_Cons by simp
    next
      case False
      then have room: "sz + 1 < length buf" using sz less.prems(3) by simp
      obtain buf1 where two: "Option.bind (block_write buf sz (ucast (?v AND 0xFF)))
            (\<lambda>b1. block_write b1 (sz + 1) (ucast (drop_bit 8 ?v AND 0xFF))) = Some buf1"
        and buf1: "length buf1 = 1024" "take (sz + 2) buf1 = map Some (bs @ le16 ?v)"
        using write_two_bytes [OF less.prems(4,5) room, of "ucast (?v AND 0xFF)"
            "ucast (drop_bit 8 ?v AND 0xFF)"] less.prems(3)
        unfolding le16_def by metis
      have step: "serialize_indents ia iter sz buf = serialize_indents ia (iter + 1) (sz + 2) buf1"
      proof -
        from two obtain b1 where "block_write buf sz (ucast (?v AND 0xFF)) = Some b1"
          "block_write b1 (Suc sz) (ucast (drop_bit 8 ?v AND 0xFF)) = Some buf1"
          by (auto simp: bind_eq_Some_conv)
        with True get show ?thesis
          by (subst serialize_indents.simps) (simp add: TREE_SITTER_SERIALIZATION_BUFFER_SIZE_def)
      qed
      let ?vs = "drop (unat (iter + 1)) is"
      have vs_eq: "vs = ?v # ?vs" using vs_Cons suc by simp
      have IH: "if odd (sz + 2) \<and> 1024 - (sz + 2) < 2 * length ?vs
        then serialize_indents ia (iter + 1) (sz + 2) buf1 = None
        else (let k = min (length ?vs) ((1024 - (sz + 2)) div 2) in
          \<exists>buf'. serialize_indents ia (iter + 1) (sz + 2) buf1 = Some (sz + 2 + 2 * k, buf') \<and>
            length buf' = 1024 \<and> take (sz + 2 + 2 * k) buf' =
              map Some ((bs @ le16 ?v) @ concat (map le16 (take k ?vs))))"
        using room less.prems(1,3,5) i suc buf1
        by (intro less.hyps) (auto simp: less_diff_conv)
      show ?thesis
      proof (cases "odd sz \<and> 1024 - sz < 2 * length vs")
        case odd: True
        then have "odd (sz + 2) \<and> 1024 - (sz + 2) < 2 * length ?vs"
          using vs_eq room less.prems(3) by auto
        with IH odd step show ?thesis by simp
      next
        case fits: False
        then have n: "\<not> (odd (sz + 2) \<and> 1024 - (sz + 2) < 2 * length ?vs)"
          using vs_eq room less.prems(3) by auto
        let ?k = "min (length ?vs) ((1024 - (sz + 2)) div 2)"
        have k: "min (length vs) ((1024 - sz) div 2) = Suc ?k"
        proof -
          have "(1024 - sz) div 2 = Suc ((1024 - (sz + 2)) div 2)"
            using room less.prems(3) by linarith
          then show ?thesis using vs_eq by simp
        qed
        from IH n obtain buf' where
          "serialize_indents ia (iter + 1) (sz + 2) buf1 = Some (sz + 2 + 2 * ?k, buf')"
          "length buf' = 1024" "take (sz + 2 + 2 * ?k) buf' =
              map Some ((bs @ le16 ?v) @ concat (map le16 (take ?k ?vs)))"
          by (auto simp only: if_False Let_def)
        then show ?thesis using fits step k vs_eq by (simp add: Let_def)
      qed
    qed
  qed
qed

section \<open>The whole buffer\<close>

text \<open>The bytes in front of the indents: the flag, the count and the delimiters.\<close>

definition header_bytes :: "bool \<Rightarrow> Delimiter list \<Rightarrow> u8 list" where
  "header_bytes inside ds =
     [of_bool inside, of_nat (min 255 (length ds))] @ map flags (take 255 ds)"

lemma length_header_bytes: "length (header_bytes inside ds) = 2 + min 255 (length ds)"
  by (simp add: header_bytes_def)

lemma write_header:
  assumes ds: "arr_rep da ds" and buf: "length buf = 1024"
    and n: "n = min 255 (length ds)"
  shows "\<exists>b1 b2 b3. block_write buf 0 (of_bool inside) = Some b1 \<and>
    block_write b1 1 (of_nat n) = Some b2 \<and>
    (if n > 0 then Option.bind (block_slice (arr_cells da) 0 n)
        (\<lambda>bytes. block_copy_in b2 2 (map (map_option flags) bytes)) else Some b2) = Some b3 \<and>
    length b3 = 1024 \<and> take (2 + n) b3 = map Some (header_bytes inside ds)"
proof -
  let ?b2 = "buf[0 := Some (of_bool inside), Suc 0 := Some (of_nat n)]"
  have two: "take 2 ?b2 = [Some (of_bool inside), Some (of_nat n)]"
    using buf by (cases buf; cases "tl buf") (auto simp: numeral_2_eq_2)
  have slice: "block_slice (arr_cells da) 0 n = Some (map Some (take n ds))"
    using ds n block_slice_rep [of ds "arr_cells da" n] by (simp add: arr_rep_def)
  have tn: "take n ds = take 255 ds" using n by (simp add: min_def)
  let ?b3 = "take 2 ?b2 @ map Some (map flags (take n ds)) @ drop (2 + n) ?b2"
  have len: "length ?b3 = 1024" using n buf by (simp add: min_def)
  have "take (2 + n) (xs @ ys @ zs) = xs @ ys" if "length xs = 2" "length ys = n"
    for xs ys zs :: "u8 cells" using that by simp
  then have "take (2 + n) ?b3 = take 2 ?b2 @ map Some (map flags (take n ds))"
    by this (use n buf in simp_all)
  also have "\<dots> = map Some (header_bytes inside ds)"
    unfolding two tn header_bytes_def by (simp add: n)
  finally have t: "take (2 + n) ?b3 = map Some (header_bytes inside ds)" .
  have copy: "block_copy_in ?b2 2 (map (map_option flags) (map Some (take n ds))) = Some ?b3"
    using n buf by (simp add: block_copy_in_def comp_def min_def)
  have "n = 0 \<Longrightarrow> take 2 xs @ map Some (map flags (take n ds)) @ drop (2 + n) xs = xs"
    for xs :: "u8 cells" by simp
  then have zero: "n = 0 \<Longrightarrow> ?b3 = ?b2" .
  have w0: "block_write buf 0 (of_bool inside) = Some (buf[0 := Some (of_bool inside)])"
    using buf by (simp add: block_write_def)
  have w1: "block_write (buf[0 := Some (of_bool inside)]) 1 (of_nat n) = Some ?b2"
    using buf by (simp add: block_write_def)
  have w2: "(if n > 0 then Option.bind (block_slice (arr_cells da) 0 n)
        (\<lambda>bytes. block_copy_in ?b2 2 (map (map_option flags) bytes)) else Some ?b2) = Some ?b3"
  proof (cases "n = 0")
    case True
    have "\<not> n > 0" using True by simp
    then show ?thesis using arg_cong [OF zero [OF True], of Some, symmetric]
      by (simp only: if_False)
  next
    case False
    then have "n > 0" by simp
    then show ?thesis by (simp only: if_True slice bind.bind_lunit copy)
  qed
  from w0 w1 w2 len t show ?thesis by blast
qed

theorem serialize_scanner:
  assumes rep: "scanner_rep sc ds is" and buf: "length buf = 1024" and ne: "is \<noteq> []"
  defines "n \<equiv> min 255 (length ds)"
  shows "if odd n \<and> 1022 - n < 2 * length (tl is)
    then tree_sitter_mojo_external_scanner_serialize sc buf = None
    else (let k = min (length (tl is)) ((1022 - n) div 2) in
      \<exists>buf'. tree_sitter_mojo_external_scanner_serialize sc buf = Some (2 + n + 2 * k, buf') \<and>
        length buf' = 1024 \<and> take (2 + n + 2 * k) buf' =
          map Some (header_bytes (inside_interpolated_string sc) ds @
            concat (map le16 (take k (tl is)))))"
proof -
  have da: "arr_rep (delimiters sc) ds" and ia: "arr_rep (indents sc) is"
    using rep by (simp_all add: scanner_rep_def)
  have dn: "unat (asize (delimiters sc)) = length ds" using da by (simp add: arr_rep_def)
  have count: "(if 255 < length ds then 255 else length ds) = n" by (simp add: n_def)
  from write_header [OF da buf n_def [THEN meta_eq_to_obj_eq], of "inside_interpolated_string sc"]
  obtain b1 b2 b3 where w: "block_write buf 0 (of_bool (inside_interpolated_string sc)) = Some b1"
      "block_write b1 1 (of_nat n) = Some b2"
      "(if n > 0 then Option.bind (block_slice (arr_cells (delimiters sc)) 0 n)
        (\<lambda>bytes. block_copy_in b2 2 (map (map_option flags) bytes)) else Some b2) = Some b3"
    and b3: "length b3 = 1024"
      "take (2 + n) b3 = map Some (header_bytes (inside_interpolated_string sc) ds)" by blast
  have eq: "tree_sitter_mojo_external_scanner_serialize sc buf =
      serialize_indents (indents sc) 1 (2 + n) b3"
    unfolding tree_sitter_mojo_external_scanner_serialize_def Let_def dn count
    by (simp only: w bind.bind_lunit)
  have one: "unat (1 :: u32) \<le> length is" using ne by (cases "is") auto
  have hl: "length (header_bytes (inside_interpolated_string sc) ds) = 2 + n"
    by (simp add: length_header_bytes n_def)
  have le: "2 + n \<le> 1024" by (simp add: n_def)
  have "drop (unat (1 :: u32)) is = tl is" by (simp add: drop_Suc)
  from serialize_indents_rep [OF ia one b3(1) b3(2) hl le this [symmetric]]
  have "if odd (2 + n) \<and> 1024 - (2 + n) < 2 * length (tl is)
    then serialize_indents (indents sc) 1 (2 + n) b3 = None
    else (let k = min (length (tl is)) ((1024 - (2 + n)) div 2) in
      \<exists>buf'. serialize_indents (indents sc) 1 (2 + n) b3 = Some (2 + n + 2 * k, buf') \<and>
        length buf' = 1024 \<and> take (2 + n + 2 * k) buf' =
          map Some (header_bytes (inside_interpolated_string sc) ds @
            concat (map le16 (take k (tl is)))))" .
  moreover have "1024 - (2 + n) = 1022 - n" "odd (2 + n) = odd n" by simp_all
  ultimately show ?thesis unfolding eq by (simp only:)
qed

section \<open>Reading the buffer\<close>

lemma deserialize_indents_rep:
  assumes "arr_rep ia xs" and "take len buf = map Some bytes" and "length bytes = len"
    and "length xs + (len - sz) < 4294967296"
  shows "\<exists>ia'. deserialize_indents ia sz len buf = Some ia' \<and>
    arr_rep ia' (xs @ u16s_of (drop sz bytes))"
  using assms(1,4)
proof (induction "len - sz" arbitrary: ia xs sz rule: less_induct)
  case less
  show ?case
  proof (cases "sz + 1 < len")
    case False
    then have "length (drop sz bytes) \<le> 1" using assms(3) by simp
    then have "u16s_of (drop sz bytes) = []"
      by (cases "drop sz bytes" rule: u16s_of.cases) auto
    with False less.prems show ?thesis by (subst deserialize_indents.simps) simp
  next
    case True
    let ?v = "ucast (bytes ! sz) OR push_bit 8 (ucast (bytes ! (sz + 1))) :: u16"
    have rd: "block_read buf i = Some (bytes ! i)" if "i < len" for i
      using block_read_prefix [of bytes buf i] assms(2,3) that by simp
    have split: "drop sz bytes = bytes ! sz # bytes ! (sz + 1) # drop (sz + 2) bytes"
      using True assms(3) by (simp add: Cons_nth_drop_Suc)
    have room: "length xs + 1 < 4294967296" using less.prems(2) True by linarith
    obtain ia1 where push: "array_push ia ?v = Some ia1" "arr_rep ia1 (xs @ [?v])"
      using arr.push_rep [OF less.prems(1) room, of ?v] by blast
    obtain ia' where "deserialize_indents ia1 (sz + 2) len buf = Some ia'"
      "arr_rep ia' ((xs @ [?v]) @ u16s_of (drop (sz + 2) bytes))"
    proof -
      have "len - (sz + 2) < len - sz" "length (xs @ [?v]) + (len - (sz + 2)) < 4294967296"
        using True less.prems(2) by simp_all
      from less.hyps [OF this(1) push(2) this(2)] that show ?thesis by blast
    qed
    then show ?thesis using True push(1)
      by (subst deserialize_indents.simps) (simp add: rd split)
  qed
qed

lemma deserialize_delimiters_rep:
  assumes "arr_rep da []" and "block_slice buf sz n = Some (map Some bytes)"
    and "length bytes = n" and "n < 256"
  shows "\<exists>da'. deserialize_delimiters da sz n buf = Some da' \<and>
    arr_rep da' (map (\<lambda>b. \<lparr>flags = b\<rparr>) bytes)"
proof (cases "n = 0")
  case True
  then show ?thesis using assms by (simp add: deserialize_delimiters_def)
next
  case False
  let ?r = "array_reserve da (of_nat n)"
  have n: "unat (of_nat n :: u32) = n" using assms(4) by (simp add: unat_of_nat)
  have room: "n \<le> length (arr_cells ?r)" and rep: "arr_rep ?r []"
    using arr_rep_reserve(1,2) [OF assms(1), of "of_nat n"] n
    by (auto simp: arr_rep_def word_le_nat_alt)
  let ?cs = "map (Some \<circ> (\<lambda>b. \<lparr>flags = b\<rparr>)) bytes @ drop n (arr_cells ?r)"
  have "arr_rep (?r\<lparr>contents := Some ?cs, asize := of_nat n\<rparr>) (map (\<lambda>b. \<lparr>flags = b\<rparr>) bytes)"
    using rep room n assms(3) by (simp add: arr_rep_def)
  then show ?thesis using False room assms(2,3)
    by (simp add: deserialize_delimiters_def Let_def block_copy_in_def comp_def)
qed

theorem deserialize_scanner:
  assumes sc0: "scanner_rep sc0 ds0 is0"
    and buf: "take len buf = map Some bytes" "length bytes = len"
    and len: "len < 4294967296"
    and bytes: "bytes = f # of_nat (length dsb) # dsb @ rest" and "length dsb < 256"
  shows "\<exists>sc. tree_sitter_mojo_external_scanner_deserialize sc0 buf len = Some sc \<and>
    scanner_rep sc (map (\<lambda>b. \<lparr>flags = b\<rparr>) dsb) (0 # u16s_of rest) \<and>
    inside_interpolated_string sc = (f \<noteq> 0)"
proof -
  have d0: "arr_rep (array_delete (delimiters sc0)) []" "arr_rep (array_delete (indents sc0)) []"
    using sc0 arr_rep_delete unfolding scanner_rep_def by auto
  obtain ia where ia: "array_push (array_delete (indents sc0)) 0 = Some ia" "arr_rep ia [0]"
    using arr.push_rep [OF d0(2), of 0] by auto
  have rd: "block_read buf i = Some (bytes ! i)" if "i < len" for i
    using block_read_prefix [of bytes buf i] buf that by simp
  have l: "len = 2 + length dsb + length rest" using buf(2) bytes by simp
  have fits: "len \<le> length buf" using arg_cong [OF buf(1), of length] buf(2) by simp
  have "take (length dsb) (drop 2 buf) = drop 2 (take (2 + length dsb) (take len buf))"
    using l by (simp add: take_drop min_def)
  also have "\<dots> = map Some dsb" unfolding buf(1) bytes by (simp add: take_map drop_map)
  finally have slice: "block_slice buf 2 (length dsb) = Some (map Some dsb)"
    using fits l by (simp add: block_slice_def)
  obtain da where da: "deserialize_delimiters (array_delete (delimiters sc0)) 2 (length dsb) buf = Some da"
      "arr_rep da (map (\<lambda>b. \<lparr>flags = b\<rparr>) dsb)"
    using deserialize_delimiters_rep [OF d0(1) slice refl assms(6)] by blast
  have drest: "drop (2 + length dsb) bytes = rest" unfolding bytes by simp
  obtain ia' where ia': "deserialize_indents ia (2 + length dsb) len buf = Some ia'"
      "arr_rep ia' (0 # u16s_of rest)"
    using deserialize_indents_rep [OF ia(2) buf, of "2 + length dsb"] len l drest by auto
  have count: "unat (of_nat (length dsb) :: u8) = length dsb"
    using assms(6) by (simp add: unat_of_nat)
  let ?sc = "sc0\<lparr>delimiters := da, indents := ia', inside_interpolated_string := (f \<noteq> 0)\<rparr>"
  have "tree_sitter_mojo_external_scanner_deserialize sc0 buf len = Some ?sc"
    using l ia(1) rd [of 0] rd [of 1] da(1) ia'(1) count
    by (simp add: tree_sitter_mojo_external_scanner_deserialize_def bytes)
  then show ?thesis using da(2) ia'(2) by (simp add: scanner_rep_def)
qed

section \<open>Round trip\<close>

text \<open>
  Serialising a scanner whose bottom indent is 0 and reading the bytes back into any scanner
  gives the same flag, the first 255 delimiters and as many indents as fit.
\<close>

lemma serialize_deserialize:
  assumes rep: "scanner_rep sc ds (0 # is)" and sc0: "scanner_rep sc0 ds0 is0"
    and buf: "length buf = 1024"
    and ser: "tree_sitter_mojo_external_scanner_serialize sc buf = Some (len, buf')"
  shows "\<exists>sc'. tree_sitter_mojo_external_scanner_deserialize sc0 buf' len = Some sc' \<and>
    scanner_rep sc' (take 255 ds) (0 # take ((1022 - min 255 (length ds)) div 2) is) \<and>
    inside_interpolated_string sc' = inside_interpolated_string sc"
proof -
  let ?n = "min 255 (length ds)"
  let ?k = "min (length is) ((1022 - ?n) div 2)"
  have ok: "\<not> (odd ?n \<and> 1022 - ?n < 2 * length is)"
    using serialize_scanner [OF rep buf] ser by auto
  from serialize_scanner [OF rep buf] ok obtain buf1
    where "tree_sitter_mojo_external_scanner_serialize sc buf = Some (2 + ?n + 2 * ?k, buf1)"
      "take (2 + ?n + 2 * ?k) buf1 = map Some (header_bytes (inside_interpolated_string sc) ds @
          concat (map le16 (take ?k is)))"
    by (auto simp only: if_False Let_def list.sel)
  with ser have len: "len = 2 + ?n + 2 * ?k" and
    bytes: "take len buf' = map Some (header_bytes (inside_interpolated_string sc) ds @
          concat (map le16 (take ?k is)))" by auto
  let ?bytes = "header_bytes (inside_interpolated_string sc) ds @ concat (map le16 (take ?k is))"
  have lb: "length ?bytes = len" by (simp add: len length_header_bytes)
  have shape: "?bytes = of_bool (inside_interpolated_string sc) #
      of_nat (length (map flags (take 255 ds))) # map flags (take 255 ds) @
      concat (map le16 (take ?k is))"
    by (simp add: header_bytes_def min.commute)
  have l: "len < 4294967296" using len by linarith
  have c: "length (map flags (take 255 ds)) < 256" by simp
  have tk: "take ?k is = take ((1022 - ?n) div 2) is" by (simp add: min_def)
  from deserialize_scanner [OF sc0 bytes lb l shape c]
  show ?thesis by (simp add: tk comp_def del: length_map)
qed

text \<open>When everything fits, nothing is lost.\<close>

lemma serialize_fits:
  assumes rep: "scanner_rep sc ds (0 # is)" and buf: "length buf = 1024"
    and "length ds \<le> 255" and "2 + length ds + 2 * length is \<le> 1024"
  shows "\<exists>buf'. tree_sitter_mojo_external_scanner_serialize sc buf =
    Some (2 + length ds + 2 * length is, buf')"
proof -
  have n: "min 255 (length ds) = length ds" using assms(3) by simp
  have k: "min (length is) ((1022 - length ds) div 2) = length is" using assms(4) by linarith
  have "\<not> (odd (length ds) \<and> 1022 - length ds < 2 * length is)" using assms(4) by linarith
  with serialize_scanner [OF rep buf] show ?thesis unfolding n
    by (auto simp only: k Let_def if_False list.sel)
qed

end
