(* ===== verification/Mojo_Scanner_Proofs.thy ===== *)
theory Mojo_Scanner_Proofs
  imports Mojo_Serialize
begin

text \<open>
  Every call of the Mojo scanner returns, and what it does to the scanner's two stacks is one
  step of a small abstract machine. The lemmas inside \<open>context ts_lexer\<close> hold for every lexer
  that meets the documented contract; each loop is shown to end because every round consumes
  a character.
\<close>

section \<open>Delimiter flags\<close>

lemmas flag_defs = SingleQuote_def DoubleQuote_def BackQuote_def Raw_def Format_def Triple_def Bytes_def

lemma flag_values:
  "SingleQuote = 1" "DoubleQuote = 2" "BackQuote = 4" "Raw = 8" "Format = 16" "Triple = 32" "Bytes = 64"
  by (simp_all add: flag_defs)

lemma word_or_and_eq_0: "((x OR y) AND z = 0) = (x AND z = 0 \<and> y AND z = (0 :: 'a::len word))"
  by (simp add: bit.conj_disj_distrib2 or_eq_0_iff)

lemma is_flag_set_format [simp]:
  "is_format (set_format d)" "is_raw (set_format d) = is_raw d"
  "is_triple (set_format d) = is_triple d" "is_bytes (set_format d) = is_bytes d"
  "end_character (set_format d) = end_character d"
  by (simp_all add: is_format_def is_raw_def is_triple_def is_bytes_def end_character_def
      set_format_def word_or_and_eq_0 flag_values)

lemma is_flag_set_raw [simp]:
  "is_raw (set_raw d)" "is_format (set_raw d) = is_format d"
  "is_triple (set_raw d) = is_triple d" "is_bytes (set_raw d) = is_bytes d"
  "end_character (set_raw d) = end_character d"
  by (simp_all add: is_format_def is_raw_def is_triple_def is_bytes_def end_character_def
      set_raw_def word_or_and_eq_0 flag_values)

lemma is_flag_set_bytes [simp]:
  "is_bytes (set_bytes d)" "is_format (set_bytes d) = is_format d"
  "is_triple (set_bytes d) = is_triple d" "is_raw (set_bytes d) = is_raw d"
  "end_character (set_bytes d) = end_character d"
  by (simp_all add: is_format_def is_raw_def is_triple_def is_bytes_def end_character_def
      set_bytes_def word_or_and_eq_0 flag_values)

lemma is_flag_set_triple [simp]:
  "is_triple (set_triple d)" "is_format (set_triple d) = is_format d"
  "is_bytes (set_triple d) = is_bytes d" "is_raw (set_triple d) = is_raw d"
  "end_character (set_triple d) = end_character d"
  by (simp_all add: is_format_def is_raw_def is_triple_def is_bytes_def end_character_def
      set_triple_def word_or_and_eq_0 flag_values)

lemma is_flag_new [simp]:
  "\<not> is_format new_delimiter" "\<not> is_raw new_delimiter" "\<not> is_triple new_delimiter"
  "\<not> is_bytes new_delimiter" "end_character new_delimiter = 0"
  by (simp_all add: is_format_def is_raw_def is_triple_def is_bytes_def end_character_def
      new_delimiter_def)

definition is_quote :: "int \<Rightarrow> bool" where
  "is_quote c \<longleftrightarrow> c = ch_squote \<or> c = ch_dquote \<or> c = ch_bquote"

text \<open>Setting the end character of a delimiter that has none yet.\<close>

lemma set_end_character_fresh:
  assumes "end_character d = 0" and "is_quote q"
  shows "\<exists>d'. set_end_character d q = Some d' \<and> end_character d' = q \<and>
    is_format d' = is_format d \<and> is_raw d' = is_raw d \<and> is_triple d' = is_triple d \<and>
    is_bytes d' = is_bytes d"
  using assms
  by (auto simp: set_end_character_def is_quote_def end_character_def is_format_def is_raw_def
      is_triple_def is_bytes_def word_or_and_eq_0 flag_values split: if_splits)

lemma end_character_cases: "end_character d \<noteq> 0 \<Longrightarrow> is_quote (end_character d)"
  by (auto simp: end_character_def is_quote_def)

section \<open>The loops end\<close>

lemma text_lookahead_nonzero: "text_lookahead t \<noteq> 0 \<Longrightarrow> t_input t \<noteq> []"
  by auto

lemma length_tl_less: "xs \<noteq> [] \<Longrightarrow> length (tl xs) < length xs"
  by simp

text \<open>What a section may do when it returns: leave the stacks alone, or close a string.\<close>

definition string_effect :: "Scanner \<Rightarrow> Scanner \<Rightarrow> bool \<Rightarrow> nat \<Rightarrow> bool" where
  "string_effect sc sc' r tok \<longleftrightarrow>
     sc' = sc \<and> (r \<longrightarrow> tok = token_number STRING_CONTENT) \<or>
     r \<and> tok = token_number STRING_END \<and>
     (\<exists>d ds. array_pop (delimiters sc) = Some (d, ds) \<and>
        sc' = sc\<lparr>delimiters := ds, inside_interpolated_string := False\<rparr>)"

context ts_lexer
begin

lemma view_advance [simp]: "view (advance L l) = text_advance (view l) False"
  by (simp add: advance_def)

lemma view_skip [simp]: "view (skip L l) = text_advance (view l) True"
  by (simp add: skip_def)

lemma view_result_symbol [simp]:
  "view (result_symbol L tok l) = text_set_result (view l) (token_number tok)"
  by (simp add: result_symbol_def)

lemma close_string_effect:
  assumes "array_pop (delimiters sc) \<noteq> None"
  shows "\<exists>sc' l'. close_string L sc l = Some (Return True sc' l') \<and>
    string_effect sc sc' True (t_symbol (view l'))"
  using assms by (auto simp: close_string_def string_effect_def)

lemma scan_end_character_effect:
  assumes "array_pop (delimiters sc) \<noteq> None"
  shows "\<exists>r sc' l'. scan_end_character L sc d h l = Some (Return r sc' l') \<and>
    string_effect sc sc' r (t_symbol (view l'))"
proof -
  have content: "string_effect sc sc r (token_number STRING_CONTENT)" for r
    by (simp add: string_effect_def)
  show ?thesis
    using close_string_effect [OF assms, of l]
      close_string_effect [OF assms, of "advance L (advance L (lx_mark_end L l))"] content
    by (auto simp: scan_end_character_def Let_def)
qed

lemma length_raw_backslash:
  "t_input (view l) \<noteq> [] \<Longrightarrow>
     length (t_input (view (raw_backslash L d l))) < length (t_input (view l))"
  by (cases "t_input (view l)") (auto simp: raw_backslash_def Let_def)

lemma string_content_loop_ends:
  assumes "array_pop (delimiters sc) \<noteq> None"
  shows "\<exists>f. string_content_loop L sc d a h l = Some f \<and>
    (case f of Return r sc' l' \<Rightarrow> string_effect sc sc' r (t_symbol (view l')) | Through _ \<Rightarrow> True)"
proof (induction "length (t_input (view l))" arbitrary: h l rule: less_induct)
  case less
  let ?c = "text_lookahead (view l)"
  show ?case
  proof (cases "?c = 0")
    case True
    then show ?thesis by (subst string_content_loop.simps) simp
  next
    case False
    then have ne: "t_input (view l) \<noteq> []" by (rule text_lookahead_nonzero)
    have content: "string_effect sc sc r (token_number STRING_CONTENT)"
        "string_effect sc sc False tok" for r tok
      by (simp_all add: string_effect_def)
    note raw = less.hyps [of "raw_backslash L d l", OF length_raw_backslash [OF ne]]
    have adv2: "length (t_input (view (advance L (advance L (advance L (lx_mark_end L l)))))) <
        length (t_input (view l))"
      using ne by (cases "t_input (view l)") auto
    note bytes = less.hyps [OF adv2]
    have adv: "length (t_input (view (advance L l))) < length (t_input (view l))"
      using ne by simp
    note next_char = less.hyps [OF adv]
    show ?thesis
      using False raw bytes next_char content scan_end_character_effect [OF assms, of d h l]
      by (subst string_content_loop.simps) (auto simp: Let_def)
  qed
qed

lemma string_flags_loop_ends: "\<exists>d' h' l'. string_flags_loop L d h l = Some (d', h', l') \<and>
    end_character d' = end_character d"
proof (induction "length (t_input (view l))" arbitrary: d h l rule: less_induct)
  case less
  show ?case
  proof (cases "text_lookahead (view l) = 0")
    case True
    then show ?thesis by (subst string_flags_loop.simps) simp
  next
    case False
    then have adv: "length (t_input (view (advance L l))) < length (t_input (view l))"
      using text_lookahead_nonzero by simp
    show ?thesis
      using False less.hyps [OF adv, of "set_format d" True] less.hyps [OF adv, of "set_raw d" True]
        less.hyps [OF adv, of "set_bytes d" True] less.hyps [OF adv, of d True]
      by (subst string_flags_loop.simps) (simp add: Let_def)
  qed
qed

lemma layout_loop_ends:
  "\<exists>f. layout_loop L valid sc y l = Some f \<and>
     (case f of Return r sc' l' \<Rightarrow> \<not> r \<and> sc' = sc | Through _ \<Rightarrow> True)"
proof (induction "length (t_input (view l))" arbitrary: y l rule: less_induct)
  case less
  let ?c = "text_lookahead (view l)"
  show ?case
  proof (cases "?c = 0")
    case True
    then show ?thesis by (subst layout_loop.simps) (simp add: Let_def)
  next
    case False
    then have ne: "t_input (view l) \<noteq> []" by (rule text_lookahead_nonzero)
    have one: "length (t_input (view (skip L l))) < length (t_input (view l))" using ne by simp
    note next_char = less.hyps [OF one]
    have "\<not> (0 :: int) \<noteq> 0" by simp
    with advance_while_text [of "\<lambda>d. d \<noteq> 0 \<and> d \<noteq> ch_newline" True l] obtain l1
      where l1: "advance_while L (\<lambda>d. d \<noteq> 0 \<and> d \<noteq> ch_newline) True l = Some l1"
        "view l1 = text_advances (length (takeWhile (\<lambda>d. d \<noteq> 0 \<and> d \<noteq> ch_newline) (t_input (view l)))) True (view l)"
      by auto
    have comment: "?c = ch CHR ''#'' \<Longrightarrow> length (t_input (view (skip L l1))) < length (t_input (view l))"
      using ne l1(2) by (cases "t_input (view l)") (auto simp: drop_Suc)
    note after_comment = less.hyps [OF comment]
    have two: "length (t_input (view (skip L (skip L l)))) < length (t_input (view l))"
      and three: "length (t_input (view (skip L (skip L (skip L l))))) < length (t_input (view l))"
      using ne by (cases "t_input (view l)"; simp)+
    note cont = less.hyps [OF two] less.hyps [OF three]
    show ?thesis
      using False next_char after_comment cont l1(1)
      by (subst layout_loop.simps) (auto simp: Let_def)
  qed
qed

end

section \<open>The abstract machine\<close>

text \<open>
  The scanner as its client sees it: a stack of open strings, a stack of indents with 0 at
  the bottom, and the flag for an interpolated string.
\<close>

record mojo_state =
  m_delimiters :: "Delimiter list"
  m_indents :: "u16 list"
  m_inside :: bool

definition scanner_abs :: "Scanner \<Rightarrow> mojo_state \<Rightarrow> bool" where
  "scanner_abs sc s \<longleftrightarrow> scanner_rep sc (m_delimiters s) (m_indents s) \<and>
     inside_interpolated_string sc = m_inside s"

inductive mojo_step :: "mojo_state \<Rightarrow> TokenType \<Rightarrow> mojo_state \<Rightarrow> bool" where
  unchanged: "tok \<in> {NEWLINE, STRING_CONTENT, ESCAPE_INTERPOLATION, MLIR_BACKTICK, MLIR_IDENT,
      MLIR_NUMBER, MLIR_PUNCTUATION} \<Longrightarrow> mojo_step s tok s"
| indent: "last (m_indents s) < n \<Longrightarrow>
    mojo_step s INDENT (s\<lparr>m_indents := m_indents s @ [n]\<rparr>)"
| dedent: "m_indents s = is @ [n] \<Longrightarrow> is \<noteq> [] \<Longrightarrow> \<not> m_inside s \<Longrightarrow>
    mojo_step s DEDENT (s\<lparr>m_indents := is\<rparr>)"
| string_start: "is_quote (end_character d) \<Longrightarrow>
    mojo_step s STRING_START
      (s\<lparr>m_delimiters := m_delimiters s @ [d], m_inside := is_format d\<rparr>)"
| string_end: "m_delimiters s = ds @ [d] \<Longrightarrow>
    mojo_step s STRING_END (s\<lparr>m_delimiters := ds, m_inside := False\<rparr>)"

inductive_cases mojo_step_indentE: "mojo_step s INDENT s'"
inductive_cases mojo_step_dedentE: "mojo_step s DEDENT s'"
inductive_cases mojo_step_startE: "mojo_step s STRING_START s'"
inductive_cases mojo_step_endE: "mojo_step s STRING_END s'"

text \<open>The invariant of every reachable state.\<close>

definition mojo_ok :: "mojo_state \<Rightarrow> bool" where
  "mojo_ok s \<longleftrightarrow> m_indents s \<noteq> [] \<and> hd (m_indents s) = 0 \<and> sorted_wrt (<) (m_indents s) \<and>
     (\<forall>d \<in> set (m_delimiters s). is_quote (end_character d))"

definition mojo_init :: mojo_state where
  "mojo_init = \<lparr>m_delimiters = [], m_indents = [0], m_inside = False\<rparr>"

lemma mojo_ok_init: "mojo_ok mojo_init"
  by (simp add: mojo_ok_def mojo_init_def)

lemma sorted_wrt_less_append_last:
  "sorted_wrt (<) xs \<Longrightarrow> xs \<noteq> [] \<Longrightarrow> last xs < (n :: 'a::linorder) \<Longrightarrow> sorted_wrt (<) (xs @ [n])"
proof -
  assume s: "sorted_wrt (<) xs" and ne: "xs \<noteq> []" and n: "last xs < n"
  have "x \<le> last xs" if "x \<in> set xs" for x
    using s ne that by (induction xs) (auto simp: less_imp_le split: if_splits)
  with s n show ?thesis by (auto simp: sorted_wrt_append intro: le_less_trans)
qed

lemma mojo_step_ok: "mojo_step s tok s' \<Longrightarrow> mojo_ok s \<Longrightarrow> mojo_ok s'"
proof (induction rule: mojo_step.induct)
  case (indent s n)
  then show ?case by (auto simp: mojo_ok_def sorted_wrt_less_append_last)
next
  case (dedent s "is" n)
  then show ?case by (auto simp: mojo_ok_def sorted_wrt_append)
next
  case (string_end s ds d)
  then show ?case by (auto simp: mojo_ok_def)
qed (auto simp: mojo_ok_def)

text \<open>A strictly increasing stack of 16-bit values has at most 65536 of them.\<close>

lemma sorted_u16_length: "sorted_wrt (<) (xs :: u16 list) \<Longrightarrow> length xs \<le> 65536"
proof -
  assume "sorted_wrt (<) xs"
  then have "distinct xs" by (simp add: strict_sorted_iff)
  then have "distinct (map unat xs)" by (auto simp: distinct_map inj_on_def intro: unsigned_word_eqI)
  then have "length xs = card (set (map unat xs))" by (metis distinct_card length_map)
  also have "\<dots> \<le> card {..<65536 :: nat}"
    by (rule card_mono) (auto simp: unat_u16_bound)
  finally show ?thesis by simp
qed

lemma mojo_ok_indents_length: "mojo_ok s \<Longrightarrow> length (m_indents s) \<le> 65536"
  by (simp add: mojo_ok_def sorted_u16_length)

section \<open>One call is one step\<close>

text \<open>
  Which tokens a call may report, for a given set of valid symbols. \<open>DEDENT\<close> is the one token
  the scanner may report without the parser asking for it: when neither a newline nor a
  closing bracket is expected. An MLIR fragment reports any of its three interior tokens
  when one of them is valid.
\<close>

fun token_allowed :: "(TokenType \<Rightarrow> bool) \<Rightarrow> TokenType \<Rightarrow> bool" where
  "token_allowed valid STRING_END = valid STRING_CONTENT"
| "token_allowed valid MLIR_IDENT = mlir_interior valid"
| "token_allowed valid MLIR_NUMBER = mlir_interior valid"
| "token_allowed valid MLIR_PUNCTUATION = mlir_interior valid"
| "token_allowed valid DEDENT =
     (valid DEDENT \<or> \<not> valid NEWLINE \<and> \<not> within_brackets valid)"
| "token_allowed valid COMMENT = False"
| "token_allowed valid CLOSE_PAREN = False"
| "token_allowed valid CLOSE_BRACKET = False"
| "token_allowed valid CLOSE_BRACE = False"
| "token_allowed valid EXCEPT = False"
| "token_allowed valid tok = valid tok"

definition scan_effect ::
    "(TokenType \<Rightarrow> bool) \<Rightarrow> mojo_state \<Rightarrow> bool \<Rightarrow> Scanner \<Rightarrow> nat \<Rightarrow> bool" where
  "scan_effect valid s r sc' n \<longleftrightarrow> (\<exists>s'. scanner_abs sc' s' \<and>
     (if r then \<exists>tok. n = token_number tok \<and> token_allowed valid tok \<and> mojo_step s tok s'
      else s' = s))"

lemma scan_effect_none: "scanner_abs sc s \<Longrightarrow> scan_effect valid s False sc n"
  by (auto simp: scan_effect_def)

lemma scan_effect_unchanged:
  assumes "scanner_abs sc s" and "token_allowed valid tok"
    and "tok \<in> {NEWLINE, STRING_CONTENT, ESCAPE_INTERPOLATION, MLIR_BACKTICK, MLIR_IDENT,
      MLIR_NUMBER, MLIR_PUNCTUATION}"
  shows "scan_effect valid s r sc (token_number tok)"
  using assms(1,2) mojo_step.unchanged [OF assms(3), of s] unfolding scan_effect_def
  by (cases r) auto

lemma scan_effect_string_end:
  assumes "scanner_abs sc s" and "valid STRING_CONTENT"
    and "array_pop (delimiters sc) = Some (d, ds)" and "m_delimiters s \<noteq> []"
  shows "scan_effect valid s True (sc\<lparr>delimiters := ds, inside_interpolated_string := False\<rparr>)
    (token_number STRING_END)"
proof -
  let ?s' = "s\<lparr>m_delimiters := butlast (m_delimiters s), m_inside := False\<rparr>"
  have "arr_rep (delimiters sc) (m_delimiters s)"
    using assms(1) by (simp add: scanner_abs_def scanner_rep_def)
  from arr.pop_rep [OF this assms(4)] assms(3)
  have "arr_rep ds (butlast (m_delimiters s))" by auto
  then have "scanner_abs (sc\<lparr>delimiters := ds, inside_interpolated_string := False\<rparr>) ?s'"
    using assms(1) by (simp add: scanner_abs_def scanner_rep_def)
  moreover have "m_delimiters s = butlast (m_delimiters s) @ [last (m_delimiters s)]"
    using assms(4) by simp
  from mojo_step.string_end [OF this] have "mojo_step s STRING_END ?s'" .
  ultimately show ?thesis using assms(2) unfolding scan_effect_def
    by (auto intro!: exI [of _ ?s'] exI [of _ STRING_END])
qed

lemma scan_effect_string_effect:
  assumes "scanner_abs sc s" and "valid STRING_CONTENT" and "m_delimiters s \<noteq> []"
    and "string_effect sc sc' r n"
  shows "scan_effect valid s r sc' n"
proof -
  consider "sc' = sc" "r \<longrightarrow> n = token_number STRING_CONTENT"
    | d ds where "r" "n = token_number STRING_END" "array_pop (delimiters sc) = Some (d, ds)"
        "sc' = sc\<lparr>delimiters := ds, inside_interpolated_string := False\<rparr>"
    using assms(4) unfolding string_effect_def by blast
  then show ?thesis
  proof cases
    case 1
    then show ?thesis
      using assms(1,2) scan_effect_none scan_effect_unchanged [of sc s valid STRING_CONTENT True]
      by (cases r) auto
  next
    case 2
    with scan_effect_string_end [of sc s valid d ds] assms(1-3) show ?thesis by simp
  qed
qed

lemma scanner_abs_delimiters:
  "scanner_abs sc s \<Longrightarrow> asize (delimiters sc) > 0 \<Longrightarrow>
     m_delimiters s \<noteq> [] \<and> array_back (delimiters sc) = Some (last (m_delimiters s)) \<and>
     array_pop (delimiters sc) \<noteq> None"
  using arr_rep_nonempty [of "delimiters sc" "m_delimiters s"]
    arr.peek_rep [of "delimiters sc" "m_delimiters s"] arr.pop_rep [of "delimiters sc" "m_delimiters s"]
  by (auto simp: scanner_abs_def scanner_rep_def)

context ts_lexer
begin

lemma scan_mlir_ends:
  "scan_mlir L valid l \<noteq> None \<and> (\<forall>l'. scan_mlir L valid l = Some (True, l') \<longrightarrow>
     (\<exists>tok \<in> {MLIR_BACKTICK, MLIR_IDENT, MLIR_NUMBER, MLIR_PUNCTUATION}.
        t_symbol (view l') = token_number tok \<and> token_allowed valid tok))"
proof -
  obtain l1 where blank: "(if mlir_interior valid
      then advance_while L (\<lambda>c. c = ch CHR '' '' \<or> c = ch_tab) True l else Some l) = Some l1"
    using advance_while_text [of "\<lambda>c. c = ch CHR '' '' \<or> c = ch_tab" True l]
    by (cases "mlir_interior valid") auto
  obtain l2 where ident: "advance_while L (\<lambda>d. ident_start d \<or> digit d) False l1 = Some l2"
    using advance_while_text [of "\<lambda>d. ident_start d \<or> digit d" False l1]
    by (auto simp: ident_start_def digit_def)
  obtain l3 where num: "advance_while L digit False l1 = Some l3"
    using advance_while_text [of digit False l1] by (auto simp: digit_def)
  show ?thesis unfolding scan_mlir_def blank by (auto simp: Let_def ident num)
qed

lemma scan_escape_interpolation_effect:
  assumes "scanner_abs sc s"
  shows "\<exists>f. scan_escape_interpolation L valid sc l = Some f \<and>
    (case f of Return r sc' l' \<Rightarrow> scan_effect valid s r sc' (t_symbol (view l'))
     | Through _ \<Rightarrow> True)"
proof (cases "valid ESCAPE_INTERPOLATION \<and> asize (delimiters sc) > 0")
  case False
  then show ?thesis by (auto simp: scan_escape_interpolation_def)
next
  case True
  have "scan_effect valid s True sc (token_number ESCAPE_INTERPOLATION)"
    using True by (intro scan_effect_unchanged [OF assms]) auto
  with True scanner_abs_delimiters [OF assms] scan_effect_none [OF assms] show ?thesis
    by (auto simp: scan_escape_interpolation_def Let_def)
qed

lemma scan_string_content_effect:
  assumes "scanner_abs sc s"
  shows "\<exists>f. scan_string_content L valid sc a l = Some f \<and>
    (case f of Return r sc' l' \<Rightarrow> scan_effect valid s r sc' (t_symbol (view l'))
     | Through _ \<Rightarrow> True)"
proof (cases "valid STRING_CONTENT \<and> asize (delimiters sc) > 0 \<and> \<not> error_recovery_mode valid")
  case False
  then show ?thesis by (auto simp: scan_string_content_def)
next
  case True
  note d = scanner_abs_delimiters [OF assms]
  obtain f where f: "string_content_loop L sc (last (m_delimiters s)) a a l = Some f"
    "case f of Return r sc' l' \<Rightarrow> string_effect sc sc' r (t_symbol (view l')) | Through _ \<Rightarrow> True"
    using string_content_loop_ends [of sc "last (m_delimiters s)" a a l] d True by auto
  have "case f of Return r sc' l' \<Rightarrow> scan_effect valid s r sc' (t_symbol (view l')) | Through _ \<Rightarrow> True"
    using f(2) scan_effect_string_effect [OF assms] d True by (cases f) auto
  then show ?thesis using True d f(1) by (auto simp: scan_string_content_def)
qed

lemma scan_line_end_effect:
  assumes abs: "scanner_abs sc s" and ok: "mojo_ok s"
  shows "\<exists>f. scan_line_end L valid sc y l = Some f \<and>
    (case f of Return r sc' l' \<Rightarrow> scan_effect valid s r sc' (t_symbol (view l'))
     | Through _ \<Rightarrow> True)"
proof -
  have rep: "arr_rep (indents sc) (m_indents s)" and ne: "m_indents s \<noteq> []"
    using abs ok by (simp_all add: scanner_abs_def scanner_rep_def mojo_ok_def)
  have newline: "valid NEWLINE \<Longrightarrow> scan_effect valid s True sc (token_number NEWLINE)"
    by (rule scan_effect_unchanged [OF abs]) auto
  have top: "array_back (indents sc) = Some (last (m_indents s))"
    by (rule arr.peek_rep [OF rep ne])
  obtain ip where push: "array_push (indents sc) (indent_length y) = Some ip"
    "arr_rep ip (m_indents s @ [indent_length y])"
    using arr.push_rep [OF rep, of "indent_length y"] mojo_ok_indents_length [OF ok] by auto
  obtain iq where pop: "array_pop (indents sc) = Some (last (m_indents s), iq)"
    "arr_rep iq (butlast (m_indents s))"
    using arr.pop_rep [OF rep ne] by auto
  have indent: "scan_effect valid s True (sc\<lparr>indents := ip\<rparr>) (token_number INDENT)"
    if "valid INDENT" "last (m_indents s) < indent_length y"
  proof -
    have "scanner_abs (sc\<lparr>indents := ip\<rparr>) (s\<lparr>m_indents := m_indents s @ [indent_length y]\<rparr>)"
      using abs push(2) by (simp add: scanner_abs_def scanner_rep_def)
    with mojo_step.indent [OF that(2)] that(1) show ?thesis
      unfolding scan_effect_def by (auto intro!: exI [of _ INDENT])
  qed
  have dedent: "scan_effect valid s True (sc\<lparr>indents := iq\<rparr>) (token_number DEDENT)"
    if "token_allowed valid DEDENT" "indent_length y < last (m_indents s)"
      "\<not> inside_interpolated_string sc"
  proof -
    have m: "m_indents s = butlast (m_indents s) @ [last (m_indents s)]" using ne by simp
    have "butlast (m_indents s) \<noteq> []"
    proof
      assume "butlast (m_indents s) = []"
      with m have "m_indents s = [last (m_indents s)]" by simp
      then have "last (m_indents s) = hd (m_indents s)" by (metis list.sel(1))
      then have "last (m_indents s) = 0" using ok by (simp add: mojo_ok_def)
      with that(2) show False by simp
    qed
    moreover have "\<not> m_inside s" using that(3) abs by (simp add: scanner_abs_def)
    ultimately have "mojo_step s DEDENT (s\<lparr>m_indents := butlast (m_indents s)\<rparr>)"
      using mojo_step.dedent [OF m] by blast
    moreover have "scanner_abs (sc\<lparr>indents := iq\<rparr>) (s\<lparr>m_indents := butlast (m_indents s)\<rparr>)"
      using abs pop(2) by (simp add: scanner_abs_def scanner_rep_def)
    ultimately show ?thesis using that(1)
      unfolding scan_effect_def by (auto intro!: exI [of _ DEDENT])
  qed
  have pos: "asize (indents sc) > 0" using arr_rep_nonempty [OF rep] ne by simp
  show ?thesis
    using newline indent dedent
    by (auto simp: scan_line_end_def Let_def pos top push(1) pop(1))
qed

lemma open_quote_ends:
  assumes "end_character d = 0" and "is_quote q"
  shows "\<exists>d' l'. open_quote L d q l = Some (d', l') \<and> end_character d' = q"
proof -
  obtain d' where d': "set_end_character d q = Some d'" "end_character d' = q"
    using set_end_character_fresh [OF assms] by auto
  then show ?thesis by (simp add: open_quote_def Let_def)
qed

lemma scan_string_start_effect:
  assumes abs: "scanner_abs sc s" and room: "length (m_delimiters s) + 1 < 4294967296"
  shows "\<exists>r sc' l'. scan_string_start L valid sc y l = Some (r, sc', l') \<and>
    scan_effect valid s r sc' (t_symbol (view l'))"
proof (cases "first_comment_indent_length y = -1 \<and> valid STRING_START")
  case False
  then show ?thesis using scan_effect_none [OF abs] by (auto simp: scan_string_start_def)
next
  case True
  have rep: "arr_rep (delimiters sc) (m_delimiters s)"
    using abs by (simp add: scanner_abs_def scanner_rep_def)
  obtain d h l1 where fl: "string_flags_loop L new_delimiter False l = Some (d, h, l1)"
    "end_character d = 0"
    using string_flags_loop_ends [of new_delimiter False l] by auto
  obtain db where db: "set_end_character d ch_bquote = Some db"
    using set_end_character_fresh [OF fl(2), of ch_bquote] by (auto simp: is_quote_def)
  obtain ds ls where dq: "open_quote L d ch_squote l1 = Some (ds, ls)"
    using open_quote_ends [OF fl(2), of ch_squote l1] by (auto simp: is_quote_def)
  obtain dd ld where ddq: "open_quote L d ch_dquote l1 = Some (dd, ld)"
    using open_quote_ends [OF fl(2), of ch_dquote l1] by (auto simp: is_quote_def)
  have "(if lx_lookahead L l1 = ch_bquote then do {
             delimiter \<leftarrow> set_end_character d ch_bquote;
             Some (delimiter, lx_mark_end L (advance L l1)) }
           else if lx_lookahead L l1 = ch_squote then open_quote L d ch_squote l1
           else if lx_lookahead L l1 = ch_dquote then open_quote L d ch_dquote l1
           else Some (d, l1)) \<noteq> None"
    by (simp add: db [simplified] dq [simplified] ddq [simplified])
  then obtain d2 l2 where quote: "(if lx_lookahead L l1 = ch_bquote then do {
             delimiter \<leftarrow> set_end_character d ch_bquote;
             Some (delimiter, lx_mark_end L (advance L l1)) }
           else if lx_lookahead L l1 = ch_squote then open_quote L d ch_squote l1
           else if lx_lookahead L l1 = ch_dquote then open_quote L d ch_dquote l1
           else Some (d, l1)) = Some (d2, l2)" by fast
  obtain ds' where push: "array_push (delimiters sc) d2 = Some ds'"
    "arr_rep ds' (m_delimiters s @ [d2])"
    using arr.push_rep [OF rep room, of d2] by auto
  have start: "scan_effect valid s True
      (sc\<lparr>delimiters := ds', inside_interpolated_string := is_format d2\<rparr>) (token_number STRING_START)"
    if "end_character d2 \<noteq> 0"
  proof -
    let ?s' = "s\<lparr>m_delimiters := m_delimiters s @ [d2], m_inside := is_format d2\<rparr>"
    have "mojo_step s STRING_START ?s'"
      by (rule mojo_step.string_start [OF end_character_cases [OF that]])
    moreover have "scanner_abs (sc\<lparr>delimiters := ds', inside_interpolated_string := is_format d2\<rparr>) ?s'"
      using abs push(2) by (simp add: scanner_abs_def scanner_rep_def)
    ultimately show ?thesis using True
      unfolding scan_effect_def by (auto intro!: exI [of _ STRING_START])
  qed
  have eq: "scan_string_start L valid sc y l =
      (if end_character d2 \<noteq> 0 then Some (True,
          sc\<lparr>delimiters := ds', inside_interpolated_string := is_format d2\<rparr>,
          result_symbol L STRING_START l2)
       else Some (False, sc, l2))"
    unfolding scan_string_start_def using True
    by (simp only: fl(1) quote push(1) bind.bind_lunit prod.case if_True simp_thms)
  show ?thesis unfolding eq using start scan_effect_none [OF abs] by auto
qed

text \<open>The whole function.\<close>

lemma scan_effect_scan:
  assumes abs: "scanner_abs sc s" and ok: "mojo_ok s"
    and room: "length (m_delimiters s) + 1 < 4294967296"
  shows "\<exists>r sc' l'. tree_sitter_mojo_external_scanner_scan L sc l valid = Some (r, sc', l') \<and>
    scan_effect valid s r sc' (t_symbol (view l'))"
proof (cases "\<not> error_recovery_mode valid \<and> (mlir_interior valid \<or> valid MLIR_BACKTICK)")
  case True
  obtain r l' where m: "scan_mlir L valid l = Some (r, l')"
    "r \<longrightarrow> (\<exists>tok \<in> {MLIR_BACKTICK, MLIR_IDENT, MLIR_NUMBER, MLIR_PUNCTUATION}.
        t_symbol (view l') = token_number tok \<and> token_allowed valid tok)"
    using scan_mlir_ends [of valid l] by fastforce
  have "scan_effect valid s r sc (t_symbol (view l'))"
  proof (cases r)
    case True
    with m(2) obtain tok where "tok \<in> {MLIR_BACKTICK, MLIR_IDENT, MLIR_NUMBER, MLIR_PUNCTUATION}"
      "t_symbol (view l') = token_number tok" "token_allowed valid tok" by blast
    then show ?thesis using scan_effect_unchanged [OF abs, of valid tok] by auto
  next
    case False
    then show ?thesis by (simp add: scan_effect_none [OF abs])
  qed
  with True m(1) show ?thesis by (auto simp: tree_sitter_mojo_external_scanner_scan_def)
next
  case False
  obtain f1 where f1: "scan_escape_interpolation L valid sc l = Some f1"
    "case f1 of Return r sc' l' \<Rightarrow> scan_effect valid s r sc' (t_symbol (view l')) | Through _ \<Rightarrow> True"
    using scan_escape_interpolation_effect [OF abs] by blast
  show ?thesis
  proof (cases f1)
    case (Return r sc' l')
    with f1 False show ?thesis by (auto simp: tree_sitter_mojo_external_scanner_scan_def)
  next
    case t1: (Through l1)
    obtain f2 where f2: "scan_string_content L valid sc False l1 = Some f2"
      "case f2 of Return r sc' l' \<Rightarrow> scan_effect valid s r sc' (t_symbol (view l')) | Through _ \<Rightarrow> True"
      using scan_string_content_effect [OF abs] by blast
    show ?thesis
    proof (cases f2)
      case (Return r sc' l')
      with f1 f2 t1 False show ?thesis by (auto simp: tree_sitter_mojo_external_scanner_scan_def)
    next
      case t2: (Through l2)
      obtain f3 where f3: "layout_loop L valid sc layout_init (lx_mark_end L l2) = Some f3"
        "case f3 of Return r sc' l' \<Rightarrow> \<not> r \<and> sc' = sc | Through _ \<Rightarrow> True"
        using layout_loop_ends by blast
      show ?thesis
      proof (cases f3)
        case (Return r sc' l')
        with f1 f2 f3 t1 t2 False scan_effect_none [OF abs] show ?thesis
          by (auto simp: tree_sitter_mojo_external_scanner_scan_def)
      next
        case t3: (Through yl)
        obtain f4 where f4: "scan_line_end L valid sc (fst yl) (snd yl) = Some f4"
          "case f4 of Return r sc' l' \<Rightarrow> scan_effect valid s r sc' (t_symbol (view l')) | Through _ \<Rightarrow> True"
          using scan_line_end_effect [OF abs ok] by blast
        show ?thesis
        proof (cases f4)
          case (Return r sc' l')
          with f1 f2 f3 f4 t1 t2 t3 False show ?thesis
            by (auto simp: tree_sitter_mojo_external_scanner_scan_def)
        next
          case t4: (Through l4)
          with f1 f2 f3 f4 t1 t2 t3 False scan_string_start_effect [OF abs room, of valid "fst yl" l4]
          show ?thesis by (auto simp: tree_sitter_mojo_external_scanner_scan_def)
        qed
      qed
    qed
  qed
qed

end

end
