(* ===== verification/Mojo_Functional.thy ===== *)
theory Mojo_Functional
  imports Mojo_Scanner_Proofs
begin

text \<open>
  What the scanner recognises, stated on the text ahead: how a run of white space is measured,
  which prefix and quotes open a string, how far a string's content reaches, and the longest
  match of an MLIR identifier. The lemmas hold for every lexer of the locale \<open>ts_lexer\<close>.
\<close>

section \<open>Measuring indentation\<close>

definition blank :: "int \<Rightarrow> bool" where
  "blank c \<longleftrightarrow> c \<in> {ch_newline, ch CHR '' '', ch_return, ch_formfeed, ch_tab}"

definition restarts_line :: "int \<Rightarrow> bool" where
  "restarts_line c \<longleftrightarrow> c \<in> {ch_newline, ch_return, ch_formfeed}"

text \<open>Columns after the last character that restarts the line: 1 for a space, 8 for a tab.\<close>

definition blank_width :: "int \<Rightarrow> u16" where
  "blank_width c = (if c = ch CHR '' '' then 1 else if c = ch_tab then 8 else 0)"

definition indent_of :: "int list \<Rightarrow> u16" where
  "indent_of ws = sum_list (map blank_width (takeWhile (Not \<circ> restarts_line) (rev ws)))"

lemma indent_of_Nil [simp]: "indent_of [] = 0"
  by (simp add: indent_of_def)

lemma indent_of_Cons:
  "indent_of (c # ws) =
     (if \<exists>d \<in> set ws. restarts_line d then indent_of ws
      else (if restarts_line c then 0 else blank_width c) + indent_of ws)"
  by (auto simp: indent_of_def takeWhile_append takeWhile_eq_all_conv [THEN iffD2])

text \<open>The characters at which the loop stops without a comment or a continuation.\<close>

definition plain_char :: "int \<Rightarrow> bool" where
  "plain_char c \<longleftrightarrow> \<not> blank c \<and> c \<noteq> ch CHR ''#'' \<and> c \<noteq> ch_backslash"

context ts_lexer
begin

lemma layout_loop_blanks:
  assumes "t_input (view l) = ws @ rest" and "list_all blank ws" and "rest \<noteq> [] \<Longrightarrow> plain_char (hd rest)"
  shows "\<exists>l'. layout_loop L valid sc y l = Some (Through
      ((if rest = [] then y\<lparr>found_end_of_line := True, indent_length := 0\<rparr>
        else y\<lparr>found_end_of_line := found_end_of_line y \<or> ch_newline \<in> set ws,
          indent_length := (if \<exists>c \<in> set ws. restarts_line c then 0 else indent_length y) +
            indent_of ws\<rparr>), l')) \<and>
    view l' = text_advances (length ws) True (view l)"
  using assms(1,2)
proof (induction ws arbitrary: l y)
  case Nil
  show ?case
  proof (cases rest)
    case Nil': Nil
    then show ?thesis using Nil by (subst layout_loop.simps) (simp add: text_eof_def)
  next
    case (Cons c cs)
    then have "plain_char c" "text_lookahead (view l) = c" "\<not> text_eof (view l)"
      using assms(3) Nil by (auto simp: text_eof_def)
    then show ?thesis using Cons
      by (subst layout_loop.simps) (simp add: plain_char_def blank_def)
  qed
next
  case (Cons c ws)
  let ?y = "y\<lparr>found_end_of_line := found_end_of_line y \<or> c = ch_newline,
    indent_length := (if restarts_line c then 0 else indent_length y + blank_width c)\<rparr>"
  have c: "blank c" and ws: "list_all blank ws" using Cons.prems by simp_all
  have la: "text_lookahead (view l) = c" using Cons.prems by simp
  have "t_input (view (skip L l)) = ws @ rest" using Cons.prems by simp
  from Cons.IH [OF this ws, of ?y] obtain l' where l': "layout_loop L valid sc ?y (skip L l) = Some (Through
      ((if rest = [] then ?y\<lparr>found_end_of_line := True, indent_length := 0\<rparr>
        else ?y\<lparr>found_end_of_line := found_end_of_line ?y \<or> ch_newline \<in> set ws,
          indent_length := (if \<exists>c \<in> set ws. restarts_line c then 0 else indent_length ?y) +
            indent_of ws\<rparr>), l'))"
    "view l' = text_advances (length ws) True (view (skip L l))" by blast
  have "layout_loop L valid sc y l = layout_loop L valid sc ?y (skip L l)"
  proof -
    from c consider "c = ch_newline" | "c = ch CHR '' ''" | "c = ch_return" | "c = ch_formfeed"
      | "c = ch_tab" by (auto simp: blank_def)
    then show ?thesis
      by cases (subst layout_loop.simps; simp add: la restarts_line_def blank_width_def)+
  qed
  with l' show ?case by (auto simp: indent_of_Cons algebra_simps)
qed

lemma scan_at_line_start:
  assumes "\<not> valid ESCAPE_INTERPOLATION" "\<not> valid STRING_CONTENT" "\<not> mlir_interior valid"
    "\<not> valid MLIR_BACKTICK"
    and "layout_loop L valid sc layout_init (lx_mark_end L l) = Some (Through (y, l1))"
  shows "tree_sitter_mojo_external_scanner_scan L sc l valid =
    Option.bind (scan_line_end L valid sc y l1) (\<lambda>f. case f of
      Return r sc l \<Rightarrow> Some (r, sc, l) | Through l \<Rightarrow> scan_string_start L valid sc y l)"
  using assms
  by (simp add: tree_sitter_mojo_external_scanner_scan_def scan_escape_interpolation_def
      scan_string_content_def)

end

section \<open>Prefixes and quotes\<close>

definition format_flag :: "int \<Rightarrow> bool" where
  "format_flag c \<longleftrightarrow> c \<in> {ch CHR ''f'', ch CHR ''F'', ch CHR ''t'', ch CHR ''T''}"

definition raw_flag :: "int \<Rightarrow> bool" where
  "raw_flag c \<longleftrightarrow> c \<in> {ch CHR ''r'', ch CHR ''R''}"

definition bytes_flag :: "int \<Rightarrow> bool" where
  "bytes_flag c \<longleftrightarrow> c \<in> {ch CHR ''b'', ch CHR ''B''}"

definition prefix_flag :: "int \<Rightarrow> bool" where
  "prefix_flag c \<longleftrightarrow> format_flag c \<or> raw_flag c \<or> bytes_flag c \<or> c \<in> {ch CHR ''u'', ch CHR ''U''}"

text \<open>The delimiter a prefix \<open>ps\<close> and an opening quote \<open>q\<close> (tripled or not) describe.\<close>

definition opened_by :: "Delimiter \<Rightarrow> int list \<Rightarrow> int \<Rightarrow> bool \<Rightarrow> bool" where
  "opened_by d ps q triple \<longleftrightarrow> end_character d = q \<and> is_triple d = triple \<and>
     is_format d = (\<exists>c \<in> set ps. format_flag c) \<and> is_raw d = (\<exists>c \<in> set ps. raw_flag c) \<and>
     is_bytes d = (\<exists>c \<in> set ps. bytes_flag c)"

lemma is_quote_not_prefix: "is_quote q \<Longrightarrow> \<not> prefix_flag q"
  by (auto simp: is_quote_def prefix_flag_def format_flag_def raw_flag_def bytes_flag_def)

text \<open>A string literal starts here: letters of a prefix, if any, and a quote.\<close>

definition starts_string :: "int list \<Rightarrow> bool" where
  "starts_string cs \<longleftrightarrow> (case dropWhile prefix_flag cs of [] \<Rightarrow> False | q # _ \<Rightarrow> is_quote q)"

text \<open>When \<open>DEDENT\<close> is reported though the parser does not expect it: no newline is expected,
  nor a string in front of a quote, nor a closing bracket.\<close>

definition closes_block_unasked :: "(TokenType \<Rightarrow> bool) \<Rightarrow> int \<Rightarrow> bool" where
  "closes_block_unasked valid c \<longleftrightarrow> \<not> valid NEWLINE \<and> \<not> (valid STRING_START \<and> is_quote c) \<and>
     \<not> within_brackets valid"

text \<open>The length of an opening quote in front of \<open>rest\<close>, and whether it is tripled.\<close>

definition quote_triple :: "int \<Rightarrow> int list \<Rightarrow> bool" where
  "quote_triple q rest \<longleftrightarrow> q \<noteq> ch_bquote \<and> take 2 rest = [q, q]"

context ts_lexer
begin

lemma string_flags_loop_run:
  assumes "t_input (view l) = ps @ r" and "list_all prefix_flag ps"
    and "r \<noteq> [] \<Longrightarrow> \<not> prefix_flag (hd r)"
  shows "\<exists>d' h' l'. string_flags_loop L d h l = Some (d', h', l') \<and>
    view l' = text_advances (length ps) False (view l) \<and>
    end_character d' = end_character d \<and> is_triple d' = is_triple d \<and>
    is_format d' = (is_format d \<or> (\<exists>c \<in> set ps. format_flag c)) \<and>
    is_raw d' = (is_raw d \<or> (\<exists>c \<in> set ps. raw_flag c)) \<and>
    is_bytes d' = (is_bytes d \<or> (\<exists>c \<in> set ps. bytes_flag c))"
  using assms(1,2)
proof (induction ps arbitrary: l d h)
  case Nil
  then show ?case using assms(3)
    by (subst string_flags_loop.simps, cases r)
      (auto simp: text_lookahead_def prefix_flag_def format_flag_def raw_flag_def bytes_flag_def)
next
  case (Cons c ps)
  have la: "text_lookahead (view l) = c" and c: "prefix_flag c" and ps: "list_all prefix_flag ps"
    and rest: "t_input (view (advance L l)) = ps @ r"
    using Cons.prems by simp_all
  note IH = Cons.IH [OF rest ps]
  consider "format_flag c" "\<not> raw_flag c" "\<not> bytes_flag c"
    | "\<not> format_flag c" "raw_flag c" "\<not> bytes_flag c"
    | "\<not> format_flag c" "\<not> raw_flag c" "bytes_flag c"
    | "\<not> format_flag c" "\<not> raw_flag c" "\<not> bytes_flag c" "c \<in> {ch CHR ''u'', ch CHR ''U''}"
    using c by (auto simp: prefix_flag_def format_flag_def raw_flag_def bytes_flag_def)
  then show ?case
  proof cases
    case 1
    then have "string_flags_loop L d h l = string_flags_loop L (set_format d) True (advance L l)"
      by (subst string_flags_loop.simps) (auto simp: la format_flag_def)
    with 1 IH [of "set_format d" True] show ?thesis by auto
  next
    case 2
    then have "string_flags_loop L d h l = string_flags_loop L (set_raw d) True (advance L l)"
      by (subst string_flags_loop.simps) (auto simp: la raw_flag_def format_flag_def)
    with 2 IH [of "set_raw d" True] show ?thesis by auto
  next
    case 3
    then have "string_flags_loop L d h l = string_flags_loop L (set_bytes d) True (advance L l)"
      by (subst string_flags_loop.simps) (auto simp: la raw_flag_def format_flag_def bytes_flag_def)
    with 3 IH [of "set_bytes d" True] show ?thesis by auto
  next
    case 4
    then have "string_flags_loop L d h l = string_flags_loop L d True (advance L l)"
      by (subst string_flags_loop.simps) (auto simp: la raw_flag_def format_flag_def bytes_flag_def)
    with 4 IH [of d True] show ?thesis by auto
  qed
qed

lemma open_quote_text:
  assumes "t_input (view l) = q # rest" and "end_character d = 0" and "\<not> is_triple d" and "is_quote q"
  shows "\<exists>d' l'. open_quote L d q l = Some (d', l') \<and> end_character d' = q \<and>
    is_triple d' = (take 2 rest = [q, q]) \<and> is_format d' = is_format d \<and> is_raw d' = is_raw d \<and>
    is_bytes d' = is_bytes d \<and> t_start (view l') = t_start (view l) \<and>
    t_end (view l') = Some (t_pos (view l) + (if take 2 rest = [q, q] then 3 else 1))"
proof -
  obtain d1 where d1: "set_end_character d q = Some d1" "end_character d1 = q"
    "is_format d1 = is_format d" "is_raw d1 = is_raw d" "is_triple d1 = is_triple d"
    "is_bytes d1 = is_bytes d" using set_end_character_fresh [OF assms(2,4)] by blast
  have q0: "q \<noteq> 0" using assms(4) by (auto simp: is_quote_def)
  show ?thesis
  proof (cases rest)
    case Nil
    then show ?thesis using d1 assms q0
      by (simp add: open_quote_def Let_def text_lookahead_def text_advance_def text_mark_end_def)
  next
    case (Cons c cs)
    then show ?thesis using d1 assms q0
      by (cases cs) (auto simp: open_quote_def Let_def text_lookahead_def text_advance_def text_mark_end_def)
  qed
qed

lemma scan_string_start_text:
  assumes abs: "scanner_abs sc s" and room: "length (m_delimiters s) + 1 < 4294967296"
    and "first_comment_indent_length y = -1" and "valid STRING_START"
    and inp: "t_input (view l) = ps @ q # rest" and ps: "list_all prefix_flag ps" and q: "is_quote q"
  shows "\<exists>sc' l' d. scan_string_start L valid sc y l = Some (True, sc', l') \<and>
    opened_by d ps q (quote_triple q rest) \<and>
    scanner_abs sc' (s\<lparr>m_delimiters := m_delimiters s @ [d], m_inside := is_format d\<rparr>) \<and>
    t_symbol (view l') = token_number STRING_START \<and>
    t_end (view l') = Some (t_pos (view l) + length ps + (if quote_triple q rest then 3 else 1))"
proof -
  obtain d h l1 where fl: "string_flags_loop L new_delimiter False l = Some (d, h, l1)"
    "view l1 = text_advances (length ps) False (view l)" "end_character d = 0" "\<not> is_triple d"
    "is_format d = (\<exists>c \<in> set ps. format_flag c)" "is_raw d = (\<exists>c \<in> set ps. raw_flag c)"
    "is_bytes d = (\<exists>c \<in> set ps. bytes_flag c)"
    using string_flags_loop_run [OF inp ps, of new_delimiter False] is_quote_not_prefix [OF q]
    by (simp only: is_flag_new simp_thms list.sel) blast
  have in1: "t_input (view l1) = q # rest" "t_pos (view l1) = t_pos (view l) + length ps"
    using fl(2) inp by (simp_all add: t_pos_advances)
  have "\<exists>d2 l2. (if lx_lookahead L l1 = ch_bquote then do {
             delimiter \<leftarrow> set_end_character d ch_bquote;
             Some (delimiter, lx_mark_end L (advance L l1)) }
           else if lx_lookahead L l1 = ch_squote then open_quote L d ch_squote l1
           else if lx_lookahead L l1 = ch_dquote then open_quote L d ch_dquote l1
           else Some (d, l1)) = Some (d2, l2) \<and> opened_by d2 ps q (quote_triple q rest) \<and>
      t_end (view l2) = Some (t_pos (view l) + length ps + (if quote_triple q rest then 3 else 1))"
  proof (cases "q = ch_bquote")
    case True
    obtain d2 where "set_end_character d q = Some d2" "end_character d2 = q"
      "is_format d2 = is_format d" "is_raw d2 = is_raw d" "is_triple d2 = is_triple d"
      "is_bytes d2 = is_bytes d" using set_end_character_fresh [OF fl(3) q] by blast
    then show ?thesis using True in1 fl
      by (auto simp: opened_by_def quote_triple_def t_pos_advance)
  next
    case False
    obtain d2 l2 where "open_quote L d q l1 = Some (d2, l2)" "end_character d2 = q"
      "is_triple d2 = (take 2 rest = [q, q])" "is_format d2 = is_format d" "is_raw d2 = is_raw d"
      "is_bytes d2 = is_bytes d"
      "t_end (view l2) = Some (t_pos (view l1) + (if take 2 rest = [q, q] then 3 else 1))"
      using open_quote_text [OF in1(1) fl(3,4) q] by blast
    note dq = this
    have op: "opened_by d2 ps q (quote_triple q rest)"
      using dq(2-6) fl(5-7) False by (simp add: opened_by_def quote_triple_def)
    have te: "t_end (view l2) = Some (t_pos (view l) + length ps + (if quote_triple q rest then 3 else 1))"
      using dq(7) in1(2) False by (simp add: quote_triple_def)
    have "text_lookahead (view l1) = q" using in1(1) by simp
    moreover have "q = ch_squote \<or> q = ch_dquote" using q False by (simp add: is_quote_def)
    ultimately show ?thesis using dq(1) op te by (elim disjE) simp_all
  qed
  then obtain d2 l2 where quote: "(if lx_lookahead L l1 = ch_bquote then do {
             delimiter \<leftarrow> set_end_character d ch_bquote;
             Some (delimiter, lx_mark_end L (advance L l1)) }
           else if lx_lookahead L l1 = ch_squote then open_quote L d ch_squote l1
           else if lx_lookahead L l1 = ch_dquote then open_quote L d ch_dquote l1
           else Some (d, l1)) = Some (d2, l2)" and d2: "opened_by d2 ps q (quote_triple q rest)"
    and e: "t_end (view l2) = Some (t_pos (view l) + length ps + (if quote_triple q rest then 3 else 1))"
    by blast
  have ec: "end_character d2 \<noteq> 0" using d2 q by (auto simp: opened_by_def is_quote_def)
  have rep: "arr_rep (delimiters sc) (m_delimiters s)"
    using abs by (simp add: scanner_abs_def scanner_rep_def)
  obtain ds' where push: "array_push (delimiters sc) d2 = Some ds'"
    "arr_rep ds' (m_delimiters s @ [d2])"
    using arr.push_rep [OF rep room, of d2] by auto
  let ?sc = "sc\<lparr>delimiters := ds', inside_interpolated_string := is_format d2\<rparr>"
  have "scan_string_start L valid sc y l = Some (True, ?sc, result_symbol L STRING_START l2)"
    unfolding scan_string_start_def using assms(3,4) ec
    by (simp only: fl(1) quote push(1) bind.bind_lunit prod.case if_True simp_thms)
  moreover have "scanner_abs ?sc (s\<lparr>m_delimiters := m_delimiters s @ [d2], m_inside := is_format d2\<rparr>)"
    using abs push(2) by (simp add: scanner_abs_def scanner_rep_def)
  ultimately show ?thesis using d2 e by auto
qed

lemma scan_string_start_fails:
  assumes "\<not> (valid STRING_START \<and> starts_string (t_input (view l)))"
  shows "\<exists>l'. scan_string_start L valid sc y l = Some (False, sc, l')"
proof -
  let ?i = "t_input (view l)" and ?r = "dropWhile prefix_flag (t_input (view l))"
  have "?i = takeWhile prefix_flag ?i @ ?r" "list_all prefix_flag (takeWhile prefix_flag ?i)"
    "?r \<noteq> [] \<Longrightarrow> \<not> prefix_flag (hd ?r)"
    by (auto simp: list_all_iff hd_dropWhile dest: set_takeWhileD)
  from string_flags_loop_run [OF this, of new_delimiter False] obtain d h l1 where fl:
    "string_flags_loop L new_delimiter False l = Some (d, h, l1)"
    "view l1 = text_advances (length (takeWhile prefix_flag ?i)) False (view l)"
    "end_character d = 0" by (auto simp: is_flag_new)
  have r: "t_input (view l1) = ?r"
    using fl(2) by (simp add: dropWhile_eq_drop)
  have "\<not> is_quote (text_lookahead (view l1))" if "valid STRING_START"
    using assms that unfolding starts_string_def text_lookahead_def r
    by (cases ?r) (simp_all add: is_quote_def del: dropWhile_eq_Nil_conv)
  then show ?thesis
    using fl(1,3) by (auto simp: scan_string_start_def is_quote_def)
qed

end

section \<open>String contents\<close>

text \<open>
  The characters that end or interrupt the content of a string opened by \<open>d\<close>: the quote, a
  newline in a string that is not triple, a brace in an interpolated one, a backslash unless
  the string is raw.
\<close>

definition interrupts :: "Delimiter \<Rightarrow> int \<Rightarrow> bool" where
  "interrupts d c \<longleftrightarrow> c = 0 \<or> c = end_character d \<or> (c = ch_newline \<and> \<not> is_triple d) \<or>
     (is_format d \<and> c \<in> {ch CHR ''{'', ch CHR ''}''}) \<or> c = ch_backslash"

context ts_lexer
begin

text \<open>Uninterrupted characters are consumed one by one, and from then on there is content.\<close>

lemma string_content_loop_run:
  assumes "t_input (view l) = cs @ rest" and "\<forall>c \<in> set cs. \<not> interrupts d c"
  shows "\<exists>l'. string_content_loop L sc d False h l =
      string_content_loop L sc d False (h \<or> cs \<noteq> []) l' \<and>
    view l' = text_advances (length cs) False (view l)"
  using assms
proof (induction cs arbitrary: l h)
  case Nil
  show ?case by (rule exI [of _ l]) simp
next
  case (Cons c cs)
  have la: "text_lookahead (view l) = c" and rest: "t_input (view (advance L l)) = cs @ rest"
    using Cons.prems by simp_all
  have "string_content_loop L sc d False h l = string_content_loop L sc d False True (advance L l)"
    using Cons.prems(2)
    by (subst string_content_loop.simps) (auto simp: la Let_def interrupts_def)
  with Cons.IH [OF rest, of True] Cons.prems(2) show ?case by auto
qed

text \<open>What the loop does at the end of such a run.\<close>

lemma string_content_loop_brace:
  assumes "text_lookahead (view l) \<in> {ch CHR ''{'', ch CHR ''}''}" and "is_format d"
  shows "string_content_loop L sc d False h l =
    Some (Return h sc (result_symbol L STRING_CONTENT (lx_mark_end L l)))"
  using assms by (subst string_content_loop.simps) auto

lemma string_content_loop_escape:
  assumes "text_lookahead (view l) = ch_backslash" and "\<not> is_raw d" and "\<not> is_bytes d"
  shows "string_content_loop L sc d False h l =
    Some (Return h sc (result_symbol L STRING_CONTENT (lx_mark_end L l)))"
  using assms by (subst string_content_loop.simps) auto

lemma string_content_loop_quote:
  assumes "text_lookahead (view l) = end_character d" and "is_quote (end_character d)"
    and "\<not> is_triple d"
  shows "string_content_loop L sc d False h l = (if h
    then Some (Return True sc (lx_mark_end L (result_symbol L STRING_CONTENT l)))
    else close_string L sc l)"
  using assms
  by (subst string_content_loop.simps) (auto simp: is_quote_def scan_end_character_def)

lemma string_content_loop_newline:
  assumes "text_lookahead (view l) = ch_newline" and "is_quote (end_character d)"
    and "\<not> is_triple d"
  shows "string_content_loop L sc d False True l = Some (Return False sc l)"
  using assms by (subst string_content_loop.simps) (auto simp: is_quote_def)

end

section \<open>Calls on strings\<close>

text \<open>Inside a string: the call is the content loop on the delimiter on top of the stack.\<close>

lemma scan_inside_string:
  assumes abs: "scanner_abs sc s" and ds: "m_delimiters s = ds @ [d]"
  shows "tree_sitter_mojo_external_scanner_scan L sc l (\<lambda>t. t = STRING_CONTENT) =
    Option.bind (string_content_loop L sc d False False l) (\<lambda>f. case f of
      Return r sc l \<Rightarrow> Some (r, sc, l)
    | Through l \<Rightarrow> Option.bind
        (layout_loop L (\<lambda>t. t = STRING_CONTENT) sc layout_init (lx_mark_end L l)) (\<lambda>f. case f of
          Return r sc l \<Rightarrow> Some (r, sc, l)
        | Through yl \<Rightarrow> Option.bind (scan_line_end L (\<lambda>t. t = STRING_CONTENT) sc (fst yl) (snd yl))
            (\<lambda>f. case f of Return r sc l \<Rightarrow> Some (r, sc, l)
             | Through l \<Rightarrow> scan_string_start L (\<lambda>t. t = STRING_CONTENT) sc (fst yl) l)))"
proof -
  have rep: "arr_rep (delimiters sc) (ds @ [d])"
    using abs ds by (simp add: scanner_abs_def scanner_rep_def)
  have "array_back (delimiters sc) = Some d" using arr.peek_rep [OF rep] by simp
  moreover have "asize (delimiters sc) > 0" using arr_rep_nonempty [OF rep] by simp
  ultimately show ?thesis
    by (simp add: tree_sitter_mojo_external_scanner_scan_def scan_escape_interpolation_def
        scan_string_content_def mlir_interior_def error_recovery_mode_def)
qed

context ts_lexer
begin

lemma scan_start_call:
  assumes abs: "scanner_abs sc s"
    and room: "length (m_delimiters s) + 1 < 4294967296"
    and inp: "t_input (view l) = ps @ q # rest" and ps: "list_all prefix_flag ps" and q: "is_quote q"
  shows "\<exists>sc' l' d. tree_sitter_mojo_external_scanner_scan L sc l (\<lambda>t. t = STRING_START) =
      Some (True, sc', l') \<and>
    opened_by d ps q (quote_triple q rest) \<and>
    scanner_abs sc' (s\<lparr>m_delimiters := m_delimiters s @ [d], m_inside := is_format d\<rparr>) \<and>
    t_symbol (view l') = token_number STRING_START \<and>
    t_end (view l') = Some (t_pos (view l) + length ps + (if quote_triple q rest then 3 else 1))"
proof -
  note L = ts_lexer_axioms
  note lx = ts_lexer.lookahead [OF L] ts_lexer.mark_end [OF L]
  have plain: "plain_char (hd (ps @ q # rest))"
    using ps q by (cases ps) (auto simp: plain_char_def blank_def prefix_flag_def format_flag_def
        raw_flag_def bytes_flag_def is_quote_def)
  have m: "t_input (view (lx_mark_end L l)) = [] @ ps @ q # rest" using inp by (simp add: lx)
  from ts_lexer.layout_loop_blanks [OF L m, of "\<lambda>t. t = STRING_START" sc layout_init] plain
  obtain l1 where l1: "layout_loop L (\<lambda>t. t = STRING_START) sc layout_init (lx_mark_end L l) =
      Some (Through (layout_init, l1))" "view l1 = text_mark_end (view l)"
    by (auto simp: lx layout_init_def)
  have noeol: "scan_line_end L (\<lambda>t. t = STRING_START) sc layout_init l1 = Some (Through l1)"
    by (simp add: scan_line_end_def layout_init_def)
  have "first_comment_indent_length layout_init = -1" by (simp add: layout_init_def)
  moreover have "t_input (view l1) = ps @ q # rest" using l1(2) inp by simp
  ultimately obtain sc' l' d where "scan_string_start L (\<lambda>t. t = STRING_START) sc layout_init l1 =
      Some (True, sc', l')" "opened_by d ps q (quote_triple q rest)"
    "scanner_abs sc' (s\<lparr>m_delimiters := m_delimiters s @ [d], m_inside := is_format d\<rparr>)"
    "t_symbol (view l') = token_number STRING_START"
    "t_end (view l') = Some (t_pos (view l1) + length ps + (if quote_triple q rest then 3 else 1))"
    using ts_lexer.scan_string_start_text [OF L abs room _ _ _ ps q, of layout_init
        "\<lambda>t. t = STRING_START" l1 rest] by auto
  then show ?thesis using ts_lexer.scan_at_line_start [OF L _ _ _ _ l1(1)] noeol l1(2)
    by (intro exI [of _ sc'] exI [of _ l'] exI [of _ d]) (simp add: mlir_interior_def)
qed

lemma scan_content_call:
  assumes abs: "scanner_abs sc s" and ds: "m_delimiters s = ds @ [d]"
    and d: "is_quote (end_character d)" "\<not> is_triple d"
    and inp: "t_input (view l) = cs @ c # rest" and cs: "cs \<noteq> []" "\<forall>c \<in> set cs. \<not> interrupts d c"
    and c: "c = end_character d \<or> c = ch_newline \<or> (is_format d \<and> c \<in> {ch CHR ''{'', ch CHR ''}''}) \<or>
      (c = ch_backslash \<and> \<not> is_raw d \<and> \<not> is_bytes d)"
  shows "\<exists>l'. tree_sitter_mojo_external_scanner_scan L sc l (\<lambda>t. t = STRING_CONTENT) =
      Some (c \<noteq> ch_newline, sc, l') \<and>
    (c \<noteq> ch_newline \<longrightarrow> t_symbol (view l') = token_number STRING_CONTENT \<and>
      t_end (view l') = Some (t_pos (view l) + length cs))"
proof -
  note L = ts_lexer_axioms
  obtain l1 where run: "string_content_loop L sc d False False l = string_content_loop L sc d False True l1"
    "view l1 = text_advances (length cs) False (view l)"
    using ts_lexer.string_content_loop_run [OF L inp cs(2), of sc False] cs(1) by auto
  have la: "text_lookahead (view l1) = c" using run(2) inp by (simp add: text_lookahead_def)
  have pos: "t_pos (view l1) = t_pos (view l) + length cs" using run(2) inp by (simp add: t_pos_advances)
  note ops = ts_lexer.mark_end [OF L] ts_lexer.view_result_symbol [OF L]
  have "\<exists>l'. string_content_loop L sc d False True l1 = Some (Return (c \<noteq> ch_newline) sc l') \<and>
    (c \<noteq> ch_newline \<longrightarrow> t_symbol (view l') = token_number STRING_CONTENT \<and>
      t_end (view l') = Some (t_pos (view l) + length cs))"
  proof (cases "c = ch_newline")
    case True
    then show ?thesis using ts_lexer.string_content_loop_newline [OF L, of l1 d sc] la d by auto
  next
    case False
    consider "c = end_character d" | "is_format d" "c \<in> {ch CHR ''{'', ch CHR ''}''}"
      | "c = ch_backslash" "\<not> is_raw d" "\<not> is_bytes d" using c False by blast
    then show ?thesis
    proof cases
      case 1
      then show ?thesis using ts_lexer.string_content_loop_quote [OF L, of l1 d sc True] la d pos
        False ops by auto
    next
      case 2
      then show ?thesis using ts_lexer.string_content_loop_brace [OF L, of l1 d sc True] la pos
        False ops by auto
    next
      case 3
      then show ?thesis using ts_lexer.string_content_loop_escape [OF L, of l1 d sc True] la pos
        False ops by auto
    qed
  qed
  then show ?thesis using scan_inside_string [OF abs ds, of L l] run(1) by auto
qed

end

section \<open>Longest match of an MLIR identifier\<close>

definition ident_char :: "int \<Rightarrow> bool" where
  "ident_char c \<longleftrightarrow> ident_start c \<or> digit c"

lemma ident_start_range: "ident_start c \<Longrightarrow> 65 \<le> c \<and> c \<le> 122 \<and> c \<noteq> ch_bquote"
  by (auto simp: ident_start_def)

context ts_lexer
begin

lemma advance_while_prefix:
  assumes "t_input (view l) = cs @ rest" and "\<forall>c \<in> set cs. p c" and "\<not> p 0"
    and "rest = [] \<or> \<not> p (hd rest)"
  shows "\<exists>l'. advance_while L p sk l = Some l' \<and> view l' = text_advances (length cs) sk (view l)"
proof -
  have "takeWhile p (cs @ rest) = cs"
    using assms(2,4) by (cases rest) (auto simp: takeWhile_append)
  with advance_while_text [where p = p and skip = sk and l = l] assms(3) assms(1) show ?thesis by simp
qed

lemma scan_mlir_ident:
  assumes "mlir_interior valid" and inp: "t_input (view l) = ws @ cs @ rest"
    and ws: "\<forall>c \<in> set ws. c = ch CHR '' '' \<or> c = ch_tab"
    and cs: "\<forall>c \<in> set cs. ident_char c" "cs \<noteq> []" "ident_start (hd cs)"
    and stop: "rest = [] \<or> \<not> ident_char (hd rest)"
  shows "\<exists>l'. scan_mlir L valid l = Some (True, l') \<and>
    t_symbol (view l') = token_number MLIR_IDENT \<and>
    t_end (view l') = Some (t_pos (view l) + length ws + length cs)"
proof -
  have hd: "hd (cs @ rest) = hd cs" "cs @ rest \<noteq> []" using cs(2) by simp_all
  obtain l1 where l1: "advance_while L (\<lambda>c. c = ch CHR '' '' \<or> c = ch_tab) True l = Some l1"
    "view l1 = text_advances (length ws) True (view l)"
    using advance_while_prefix [OF inp ws, of True] ident_start_range [OF cs(3)] hd by auto
  have in1: "t_input (view l1) = cs @ rest" using l1 inp by simp
  have la: "text_lookahead (view l1) = hd cs"
    using in1 cs(2) by (simp add: text_lookahead_def split: list.splits) (metis hd(1) list.sel(1))
  have p: "\<forall>c \<in> set cs. ident_start c \<or> digit c" "rest = [] \<or> \<not> (ident_start (hd rest) \<or> digit (hd rest))"
    "\<not> (ident_start 0 \<or> digit 0)"
    using cs stop by (auto simp: ident_char_def) (auto simp: ident_start_def digit_def)
  obtain l2 where l2: "advance_while L (\<lambda>d. ident_start d \<or> digit d) False l1 = Some l2"
    "view l2 = text_advances (length cs) False (view l1)"
    using advance_while_prefix [OF in1 p(1,3,2)] by blast
  have "t_pos (view l2) = t_pos (view l) + length ws + length cs"
    using l1(2) l2(2) inp in1 by (simp add: t_pos_advances)
  moreover have "scan_mlir L valid l = Some (True, result_symbol L MLIR_IDENT (lx_mark_end L l2))"
    unfolding scan_mlir_def
    using assms(1) la cs(3) ident_start_range [OF cs(3)]
    by (simp add: l1(1) [simplified] l2(1) [simplified])
  ultimately show ?thesis by simp
qed

end

end
