(* ===== verification/Mojo_Properties.thy ===== *)
theory Mojo_Properties
  imports Mojo_Functional
begin

text \<open>
  The correctness properties of the Mojo scanner as a whole: every call returns and is one
  step of the abstract machine, a session of calls keeps the invariant, and what survives
  the serialisation. Concrete scanners for the witnesses are built with \<open>create\<close> and run on
  \<open>text_ops\<close>.
\<close>

section \<open>Calls and sessions\<close>

text \<open>C1: Every call of \<open>tree_sitter_mojo_external_scanner_scan\<close> returns, without an access
  outside its arrays, for every lexer that meets the documented contract, every input, every
  set of valid symbols and every scanner that represents a well-formed state. When it returns
  true, the symbol it stored is a token the valid symbols allow and the two stacks changed by
  exactly the step of that token; when it returns false they are unchanged.\<close>

theorem scan_step:
  assumes "ts_lexer L view" and "scanner_abs sc s" and "mojo_ok s"
    and "length (m_delimiters s) + 1 < 4294967296"
  shows "\<exists>r sc' l' s'. tree_sitter_mojo_external_scanner_scan L sc l valid = Some (r, sc', l') \<and>
    scanner_abs sc' s' \<and>
    (if r then \<exists>tok. t_symbol (view l') = token_number tok \<and> token_allowed valid tok \<and>
       mojo_step s tok s'
     else s' = s)"
  using ts_lexer.scan_effect_scan [OF assms, of l valid] unfolding scan_effect_def by blast

definition created :: Scanner where
  "created = \<lparr>indents = \<lparr>contents = Some (Some 0 # replicate 7 None), asize = 1, capacity = 8\<rparr>,
     delimiters = \<lparr>contents = None, asize = 0, capacity = 0\<rparr>, inside_interpolated_string = False\<rparr>"

lemma create_created: "tree_sitter_mojo_external_scanner_create = Some created"
  by code_simp

lemma created_abs: "scanner_abs created mojo_init"
  by (simp add: scanner_abs_def scanner_rep_def created_def mojo_init_def arr_rep_def arr_cells_def)

lemma scan_step_witness:
  "\<exists>r sc' l' s'. tree_sitter_mojo_external_scanner_scan text_ops created
      (text_of (map of_char ''f\"x'')) (\<lambda>tok. tok = STRING_START) = Some (r, sc', l') \<and>
    scanner_abs sc' s' \<and>
    (if r then \<exists>tok. t_symbol l' = token_number tok \<and>
       token_allowed (\<lambda>tok. tok = STRING_START) tok \<and> mojo_step mojo_init tok s'
     else s' = mojo_init)"
proof -
  have "length (m_delimiters mojo_init) + 1 < 4294967296" by (simp add: mojo_init_def)
  from scan_step [OF text_lexer.ts_lexer_axioms created_abs mojo_ok_init this,
      of "text_of (map of_char ''f\"x'')" "\<lambda>tok. tok = STRING_START"]
  show ?thesis unfolding id_def .
qed

text \<open>A session: the scanner is kept across the calls, each on its own input.\<close>

fun scan_calls ::
    "'l lexer_ops \<Rightarrow> Scanner \<Rightarrow> ('l \<times> (TokenType \<Rightarrow> bool)) list \<Rightarrow> Scanner option" where
  "scan_calls L sc [] = Some sc"
| "scan_calls L sc ((l, valid) # calls) =
     Option.bind (tree_sitter_mojo_external_scanner_scan L sc l valid)
       (\<lambda>(_, sc', _). scan_calls L sc' calls)"

interpretation machine: kept_by_steps "\<lambda>s s'. \<exists>tok. mojo_step s tok s'" mojo_ok
  by unfold_locales (auto dest: mojo_step_ok)

lemma mojo_step_delimiters:
  "mojo_step s tok s' \<Longrightarrow> length (m_delimiters s') \<le> Suc (length (m_delimiters s))"
  by (induction rule: mojo_step.induct) auto

lemma scan_calls_from:
  assumes L: "ts_lexer L view"
  shows "scanner_abs sc s \<Longrightarrow> mojo_ok s \<Longrightarrow> length (m_delimiters s) + length calls < 4294967296 \<Longrightarrow>
    \<exists>sc' s'. scan_calls L sc calls = Some sc' \<and> scanner_abs sc' s' \<and>
      (\<lambda>x y. \<exists>tok. mojo_step x tok y)\<^sup>*\<^sup>* s s'"
proof (induction calls arbitrary: sc s)
  case Nil
  then show ?case by auto
next
  case (Cons call calls)
  obtain l valid where call: "call = (l, valid)" by (cases call)
  have room: "length (m_delimiters s) + 1 < 4294967296" using Cons.prems(3) by simp
  obtain r sc1 l1 s1 where one:
    "tree_sitter_mojo_external_scanner_scan L sc l valid = Some (r, sc1, l1)" "scanner_abs sc1 s1"
    "if r then \<exists>tok. t_symbol (view l1) = token_number tok \<and> token_allowed valid tok \<and>
       mojo_step s tok s1 else s1 = s"
    using ts_lexer.scan_effect_scan [OF L Cons.prems(1,2) room, of l valid]
    unfolding scan_effect_def by blast
  have step: "s1 = s \<or> (\<exists>tok. mojo_step s tok s1)" using one(3) by (auto split: if_splits)
  then have ok: "mojo_ok s1" and len: "length (m_delimiters s1) \<le> Suc (length (m_delimiters s))"
    using Cons.prems(2) mojo_step_ok mojo_step_delimiters by auto
  from Cons.IH [OF one(2) ok] len Cons.prems(3) obtain sc' s' where
    "scan_calls L sc1 calls = Some sc'" "scanner_abs sc' s'"
    "(\<lambda>x y. \<exists>tok. mojo_step x tok y)\<^sup>*\<^sup>* s1 s'" by auto
  moreover have "(\<lambda>x y. \<exists>tok. mojo_step x tok y)\<^sup>*\<^sup>* s s1"
    using step by (auto intro: r_into_rtranclp)
  ultimately show ?case using one(1) call by (auto intro: rtranclp_trans)
qed

text \<open>C2: A scanner fresh from \<open>create\<close> survives any session of fewer than 2^32 calls. The
  state it is left in is reachable by the abstract machine, its bottom indent is 0, the
  indents increase strictly (so there are at most 65536 of them and no push can overflow the
  32-bit size), and every open delimiter has a quote character.\<close>

theorem session_invariant:
  assumes "ts_lexer L view" and "length calls < 4294967296"
  shows "\<exists>sc0 sc s. tree_sitter_mojo_external_scanner_create = Some sc0 \<and>
    scan_calls L sc0 calls = Some sc \<and> scanner_abs sc s \<and>
    (\<lambda>x y. \<exists>tok. mojo_step x tok y)\<^sup>*\<^sup>* mojo_init s \<and>
    hd (m_indents s) = 0 \<and> sorted_wrt (<) (m_indents s) \<and> length (m_indents s) \<le> 65536 \<and>
    (\<forall>d \<in> set (m_delimiters s). is_quote (end_character d))"
proof -
  have "length (m_delimiters mojo_init) + length calls < 4294967296"
    using assms(2) by (simp add: mojo_init_def)
  from scan_calls_from [OF assms(1) created_abs mojo_ok_init this] obtain sc' s' where
    "scan_calls L created calls = Some sc'" "scanner_abs sc' s'"
    "(\<lambda>x y. \<exists>tok. mojo_step x tok y)\<^sup>*\<^sup>* mojo_init s'" by blast
  with machine.steps_good [OF this(3) mojo_ok_init] show ?thesis
    using create_created mojo_ok_indents_length [of s'] by (auto simp: mojo_ok_def)
qed

lemma session_invariant_witness:
  "\<exists>sc0 sc s. tree_sitter_mojo_external_scanner_create = Some sc0 \<and>
    scan_calls text_ops sc0 [(text_of [10, 32, 120], \<lambda>tok. tok = INDENT)] = Some sc \<and>
    scanner_abs sc s \<and> (\<lambda>x y. \<exists>tok. mojo_step x tok y)\<^sup>*\<^sup>* mojo_init s \<and>
    hd (m_indents s) = 0 \<and> sorted_wrt (<) (m_indents s) \<and> length (m_indents s) \<le> 65536 \<and>
    (\<forall>d \<in> set (m_delimiters s). is_quote (end_character d))"
  by (rule session_invariant [OF text_lexer.ts_lexer_axioms]) simp

section \<open>Serialisation\<close>

text \<open>C3: With the runtime's buffer of 1024 bytes, \<open>serialize\<close> writes past its end exactly when
  the number of delimiters it stores is odd and the indents do not all fit: the loop tests
  for one free byte and writes two.\<close>

theorem serialize_overflow_iff:
  assumes "scanner_abs sc s" and "mojo_ok s" and "length buf = TREE_SITTER_SERIALIZATION_BUFFER_SIZE"
  shows "tree_sitter_mojo_external_scanner_serialize sc buf = None \<longleftrightarrow>
    odd (min 255 (length (m_delimiters s))) \<and>
    TREE_SITTER_SERIALIZATION_BUFFER_SIZE - 2 - min 255 (length (m_delimiters s)) <
      2 * (length (m_indents s) - 1)"
proof -
  have rep: "scanner_rep sc (m_delimiters s) (m_indents s)" and ne: "m_indents s \<noteq> []"
    and buf: "length buf = 1024"
    using assms by (simp_all add: scanner_abs_def mojo_ok_def TREE_SITTER_SERIALIZATION_BUFFER_SIZE_def)
  show ?thesis
    using serialize_scanner [OF rep buf ne]
    by (auto simp: TREE_SITTER_SERIALIZATION_BUFFER_SIZE_def Let_def split: if_splits)
qed

text \<open>The state with one open string and indents 0, 1, .., n.\<close>

definition stair :: "nat \<Rightarrow> mojo_state" where
  "stair n = \<lparr>m_delimiters = [\<lparr>flags = DoubleQuote\<rparr>], m_indents = map of_nat [0..<Suc n],
     m_inside = False\<rparr>"

definition stair_scanner :: "nat \<Rightarrow> Scanner" where
  "stair_scanner n =
     \<lparr>indents = \<lparr>contents = Some (map (Some \<circ> of_nat) [0..<Suc n]), asize = of_nat (Suc n),
        capacity = of_nat (Suc n)\<rparr>,
      delimiters = \<lparr>contents = Some [Some \<lparr>flags = DoubleQuote\<rparr>], asize = 1, capacity = 1\<rparr>,
      inside_interpolated_string = False\<rparr>"

lemma stair_abs: "n < 65535 \<Longrightarrow> scanner_abs (stair_scanner n) (stair n)"
  by (simp add: scanner_abs_def scanner_rep_def stair_def stair_scanner_def arr_rep_def
      arr_cells_def unat_of_nat del: upt_Suc of_nat_Suc)

lemma stair_ok: "n < 65535 \<Longrightarrow> mojo_ok (stair n)"
proof -
  assume n: "n < 65535"
  have "sorted_wrt (<) (map (of_nat :: nat \<Rightarrow> u16) [0..<Suc n])"
    unfolding sorted_wrt_map
    by (rule sorted_wrt_mono_rel [OF _ sorted_wrt_upt])
      (use n in \<open>auto simp: word_less_nat_alt unat_of_nat\<close>)
  moreover have "hd (map (of_nat :: nat \<Rightarrow> u16) [0..<Suc n]) = 0"
    by (subst upt_conv_Cons) simp_all
  ultimately show ?thesis
    by (simp add: mojo_ok_def stair_def end_character_def is_quote_def flag_values del: upt_Suc)
qed

lemma serialize_overflow_iff_witness:
  "tree_sitter_mojo_external_scanner_serialize (stair_scanner 511) (replicate 1024 None) = None"
proof -
  have "odd (min 255 (length (m_delimiters (stair 511)))) \<and>
    TREE_SITTER_SERIALIZATION_BUFFER_SIZE - 2 - min 255 (length (m_delimiters (stair 511))) <
      2 * (length (m_indents (stair 511)) - 1)"
    by (simp add: stair_def TREE_SITTER_SERIALIZATION_BUFFER_SIZE_def)
  then show ?thesis
    using serialize_overflow_iff [OF stair_abs stair_ok, of 511 "replicate 1024 None"]
    by (simp add: TREE_SITTER_SERIALIZATION_BUFFER_SIZE_def)
qed

text \<open>C4: A scanner with at most 255 delimiters whose stacks fit in the buffer is serialised
  without loss: \<open>serialize\<close> reports the number of bytes, and \<open>deserialize\<close> on that many bytes,
  called on any scanner, gives a scanner that represents the same state.\<close>

theorem serialize_roundtrip:
  assumes "scanner_abs sc s" and "mojo_ok s" and "scanner_abs sc0 s0"
    and "length (m_delimiters s) \<le> 255"
    and "length (m_delimiters s) + 2 * length (m_indents s) \<le> TREE_SITTER_SERIALIZATION_BUFFER_SIZE"
    and "length buf = TREE_SITTER_SERIALIZATION_BUFFER_SIZE"
  shows "\<exists>n buf' sc'. tree_sitter_mojo_external_scanner_serialize sc buf = Some (n, buf') \<and>
    n = length (m_delimiters s) + 2 * length (m_indents s) \<and>
    tree_sitter_mojo_external_scanner_deserialize sc0 buf' n = Some sc' \<and> scanner_abs sc' s"
proof -
  obtain "is" where "is": "m_indents s = 0 # is"
    using assms(2) by (cases "m_indents s") (auto simp: mojo_ok_def)
  have rep: "scanner_rep sc (m_delimiters s) (0 # is)" and buf: "length buf = 1024"
    and rep0: "scanner_rep sc0 (m_delimiters s0) (m_indents s0)"
    using assms "is" by (simp_all add: scanner_abs_def TREE_SITTER_SERIALIZATION_BUFFER_SIZE_def)
  have fit: "2 + length (m_delimiters s) + 2 * length is \<le> 1024"
    using assms(5) "is" by (simp add: TREE_SITTER_SERIALIZATION_BUFFER_SIZE_def)
  obtain buf' where ser: "tree_sitter_mojo_external_scanner_serialize sc buf =
      Some (2 + length (m_delimiters s) + 2 * length is, buf')"
    using serialize_fits [OF rep buf assms(4) fit] by blast
  have k: "take ((1022 - min 255 (length (m_delimiters s))) div 2) is = is"
    using fit assms(4) by simp
  from serialize_deserialize [OF rep rep0 buf ser] obtain sc' where
    "tree_sitter_mojo_external_scanner_deserialize sc0 buf' (2 + length (m_delimiters s) + 2 * length is) = Some sc'"
    "scanner_rep sc' (m_delimiters s) (0 # is)"
    "inside_interpolated_string sc' = inside_interpolated_string sc"
    using assms(4) k by auto
  with ser "is" assms(1) show ?thesis by (auto simp: scanner_abs_def)
qed

lemma serialize_roundtrip_witness:
  "\<exists>n buf' sc'. tree_sitter_mojo_external_scanner_serialize (stair_scanner 3) (replicate 1024 None) = Some (n, buf') \<and>
    n = 9 \<and> tree_sitter_mojo_external_scanner_deserialize created buf' n = Some sc' \<and>
    scanner_abs sc' (stair 3)"
  using serialize_roundtrip [OF stair_abs stair_ok created_abs, of 3 "replicate 1024 None"]
  by (simp add: stair_def TREE_SITTER_SERIALIZATION_BUFFER_SIZE_def del: upt_Suc)

text \<open>\<open>deserialize\<close> with length 0 empties both stacks but keeps the flag
  \<open>inside_interpolated_string\<close> of the scanner it is called on, so the state it leaves is the
  initial one only if that flag was off.\<close>

lemma deserialize_empty:
  assumes "scanner_abs sc0 s0"
  shows "\<exists>sc. tree_sitter_mojo_external_scanner_deserialize sc0 buf 0 = Some sc \<and>
    scanner_abs sc (mojo_init\<lparr>m_inside := m_inside s0\<rparr>)"
proof -
  have d: "arr_rep (array_delete (delimiters sc0)) []" "arr_rep (array_delete (indents sc0)) []"
    using assms arr_rep_delete unfolding scanner_abs_def scanner_rep_def by auto
  obtain ia where "array_push (array_delete (indents sc0)) 0 = Some ia" "arr_rep ia [0]"
    using arr.push_rep [OF d(2), of 0] by auto
  then show ?thesis using d assms
    by (simp add: tree_sitter_mojo_external_scanner_deserialize_def scanner_abs_def
        scanner_rep_def mojo_init_def)
qed

lemma deserialize_empty_witness:
  "\<exists>sc. tree_sitter_mojo_external_scanner_deserialize
      (created\<lparr>inside_interpolated_string := True\<rparr>) [] 0 = Some sc \<and>
    scanner_abs sc (mojo_init\<lparr>m_inside := True\<rparr>)"
proof -
  have "scanner_abs (created\<lparr>inside_interpolated_string := True\<rparr>) (mojo_init\<lparr>m_inside := True\<rparr>)"
    using created_abs by (simp add: scanner_abs_def scanner_rep_def mojo_init_def)
  from deserialize_empty [OF this, of "[]"] show ?thesis by simp
qed

section \<open>Indentation\<close>

text \<open>C5: Outside strings and MLIR fragments, a run of white space that contains a newline and is
  followed by a plain character is measured as \<open>indent_of\<close> says (columns after the last line
  break, carriage return or form feed; tabs count 8), and width and valid symbols together decide
  the call. It reports \<open>INDENT\<close> and pushes the width when \<open>INDENT\<close> is valid and the width exceeds
  the current indent. Otherwise it reports \<open>DEDENT\<close> and pops the top when the width is smaller, no
  interpolated string is open, and \<open>DEDENT\<close> is valid or \<open>closes_block_unasked\<close> holds: neither a
  newline, nor a string in front of a quote, nor a closing bracket is expected. Otherwise it
  reports \<open>NEWLINE\<close> when that is valid. These tokens are empty: they end where the white space
  starts. Otherwise the call reports \<open>STRING_START\<close> where a string is expected and a prefix and
  quote follow (C8 describes the token), and fails leaving the scanner as it was where not.\<close>

theorem line_tokens:
  assumes L: "ts_lexer L view" and abs: "scanner_abs sc s" and ok: "mojo_ok s"
    and inp: "t_input (view l) = ws @ c # rest" and ws: "list_all blank ws" and c: "plain_char c"
    and room: "length (m_delimiters s) + 1 < 4294967296"
    and nl: "ch_newline \<in> set ws" and valid: "\<not> valid STRING_CONTENT"
      "\<not> valid ESCAPE_INTERPOLATION" "\<not> mlir_interior valid" "\<not> valid MLIR_BACKTICK"
  shows "let n = indent_of ws; top = last (m_indents s);
      result = tree_sitter_mojo_external_scanner_scan L sc l valid;
      reports = (\<lambda>tok s'. \<exists>sc' l'. result = Some (True, sc', l') \<and>
        t_symbol (view l') = token_number tok \<and> t_end (view l') = Some (t_pos (view l)) \<and>
        scanner_abs sc' s')
    in if valid INDENT \<and> top < n then reports INDENT (s\<lparr>m_indents := m_indents s @ [n]\<rparr>)
       else if (valid DEDENT \<or> closes_block_unasked valid c) \<and> n < top \<and> \<not> m_inside s
       then reports DEDENT (s\<lparr>m_indents := butlast (m_indents s)\<rparr>)
       else if valid NEWLINE then reports NEWLINE s
       else if valid STRING_START \<and> starts_string (c # rest)
       then \<exists>sc' l'. result = Some (True, sc', l') \<and> t_symbol (view l') = token_number STRING_START
       else \<exists>l'. result = Some (False, sc, l')"
proof -
  note lx = ts_lexer.lookahead [OF L] ts_lexer.mark_end [OF L] ts_lexer.set_result [OF L]
  have m: "t_input (view (lx_mark_end L l)) = ws @ c # rest" using inp by (simp add: lx)
  have "\<exists>c \<in> set ws. restarts_line c" using nl by (auto simp: restarts_line_def)
  with ts_lexer.layout_loop_blanks [OF L m ws, of valid sc layout_init] c nl obtain l1 where l1:
    "layout_loop L valid sc layout_init (lx_mark_end L l) = Some (Through
       (layout_init\<lparr>found_end_of_line := True, indent_length := indent_of ws\<rparr>, l1))"
    "view l1 = text_advances (length ws) True (text_mark_end (view l))"
    by (auto simp: lx)
  let ?y = "layout_init\<lparr>found_end_of_line := True, indent_length := indent_of ws\<rparr>"
  have rep: "arr_rep (indents sc) (m_indents s)" and ne: "m_indents s \<noteq> []"
    using abs ok by (simp_all add: scanner_abs_def scanner_rep_def mojo_ok_def)
  have pos: "asize (indents sc) > 0" using arr_rep_nonempty [OF rep] ne by simp
  note top = arr.peek_rep [OF rep ne]
  obtain ip where push: "array_push (indents sc) (indent_of ws) = Some ip"
    "arr_rep ip (m_indents s @ [indent_of ws])"
    using arr.push_rep [OF rep, of "indent_of ws"] mojo_ok_indents_length [OF ok] by auto
  obtain iq where pop: "array_pop (indents sc) = Some (last (m_indents s), iq)"
    "arr_rep iq (butlast (m_indents s))" using arr.pop_rep [OF rep ne] by auto
  have e: "t_end (view l1) = Some (t_pos (view l))" using l1(2) by simp
  have minus: "- 1 < uint (last (m_indents s))"
    by (rule less_le_trans [OF _ unsigned_greater_eq]) simp
  have in1: "t_input (view l1) = c # rest" and la: "lx_lookahead L l1 = c"
    using inp l1(2) by (simp_all add: lx)
  have start: "\<exists>sc' l'. scan_string_start L valid sc ?y l1 = Some (True, sc', l') \<and>
      t_symbol (view l') = token_number STRING_START"
    if v: "valid STRING_START" and st: "starts_string (c # rest)"
  proof -
    from st obtain q r where "dropWhile prefix_flag (c # rest) = q # r" and q: "is_quote q"
      by (auto simp: starts_string_def split: list.splits)
    then have "t_input (view l1) = takeWhile prefix_flag (c # rest) @ q # r"
      using in1 takeWhile_dropWhile_id by metis
    moreover have "list_all prefix_flag (takeWhile prefix_flag (c # rest))"
      by (auto simp: list_all_iff dest: set_takeWhileD)
    moreover have "first_comment_indent_length ?y = - 1" by (simp add: layout_init_def)
    ultimately show ?thesis
      using ts_lexer.scan_string_start_text [where valid = valid,
          OF L abs room _ v, of ?y l1] q by blast
  qed
  have fails: "\<exists>l'. scan_string_start L valid sc ?y l1 = Some (False, sc, l')"
    if "\<not> (valid STRING_START \<and> starts_string (c # rest))"
    using ts_lexer.scan_string_start_fails [OF L] that unfolding in1 [symmetric] .
  let ?pop = "(valid DEDENT \<or> closes_block_unasked valid c) \<and> indent_of ws < last (m_indents s) \<and>
    \<not> m_inside s"
  have "scan_line_end L valid sc ?y l1 = Some (
     if valid INDENT \<and> last (m_indents s) < indent_of ws
     then Return True (sc\<lparr>indents := ip\<rparr>) (result_symbol L INDENT l1)
     else if ?pop then Return True (sc\<lparr>indents := iq\<rparr>) (result_symbol L DEDENT l1)
     else if valid NEWLINE then Return True sc (result_symbol L NEWLINE l1) else Through l1)"
    using valid pos top push(1) pop(1) abs minus la
    by (auto simp: scan_line_end_def layout_init_def error_recovery_mode_def scanner_abs_def
        closes_block_unasked_def is_quote_def)
  then have res: "tree_sitter_mojo_external_scanner_scan L sc l valid =
     (if valid INDENT \<and> last (m_indents s) < indent_of ws
      then Some (True, sc\<lparr>indents := ip\<rparr>, result_symbol L INDENT l1)
      else if ?pop then Some (True, sc\<lparr>indents := iq\<rparr>, result_symbol L DEDENT l1)
      else if valid NEWLINE then Some (True, sc, result_symbol L NEWLINE l1)
      else scan_string_start L valid sc ?y l1)"
    using ts_lexer.scan_at_line_start [OF L valid(2,1,3,4) l1(1)] by auto
  have "scanner_abs (sc\<lparr>indents := ip\<rparr>) (s\<lparr>m_indents := m_indents s @ [indent_of ws]\<rparr>)"
    "scanner_abs (sc\<lparr>indents := iq\<rparr>) (s\<lparr>m_indents := butlast (m_indents s)\<rparr>)"
    using abs push(2) pop(2) by (simp_all add: scanner_abs_def scanner_rep_def)
  with abs e show ?thesis
    unfolding Let_def res by (simp add: ts_lexer.view_result_symbol [OF L]
        start [simplified] fails)
qed

text \<open>An indent and a dedent with the valid symbols the parser passes at the start of a block and
  inside one (rows 4 and 3 of \<open>ts_external_scanner_states\<close>).\<close>

lemma line_tokens_witness:
  "\<exists>sc1 l1 sc2 l2. tree_sitter_mojo_external_scanner_scan text_ops created
      (text_of [ch_newline, ch CHR '' '', ch_tab, ch CHR ''x''])
      (\<lambda>t. t \<in> {NEWLINE, INDENT, STRING_START, COMMENT}) = Some (True, sc1, l1) \<and>
    t_symbol l1 = token_number INDENT \<and>
    tree_sitter_mojo_external_scanner_scan text_ops sc1 (text_of [ch_newline, ch CHR ''x''])
      (\<lambda>t. t \<in> {DEDENT, STRING_START, COMMENT}) = Some (True, sc2, l2) \<and>
    t_symbol l2 = token_number DEDENT \<and> t_end l2 = Some 0 \<and> scanner_abs sc2 mojo_init"
proof -
  let ?s = "mojo_init\<lparr>m_indents := [0, 9]\<rparr>"
  have ind: "indent_of [ch_newline, ch CHR '' '', ch_tab] = 9" "indent_of [ch_newline] = 0"
    by code_simp+
  have bl: "list_all blank [ch_newline, ch CHR '' '', ch_tab]" "plain_char (ch CHR ''x'')"
    by (simp_all add: blank_def plain_char_def)
  have "\<exists>sc1 l1. tree_sitter_mojo_external_scanner_scan text_ops created
      (text_of [ch_newline, ch CHR '' '', ch_tab, ch CHR ''x''])
      (\<lambda>t. t \<in> {NEWLINE, INDENT, STRING_START, COMMENT}) = Some (True, sc1, l1) \<and>
    t_symbol l1 = token_number INDENT \<and> scanner_abs sc1 ?s"
    using ind(1) bl line_tokens [OF text_lexer.ts_lexer_axioms created_abs mojo_ok_init,
      of "text_of [ch_newline, ch CHR '' '', ch_tab, ch CHR ''x'']"
        "[ch_newline, ch CHR '' '', ch_tab]" "ch CHR ''x''" "[]"
        "\<lambda>t. t \<in> {NEWLINE, INDENT, STRING_START, COMMENT}"]
    by (auto simp: mojo_init_def text_of_def mlir_interior_def)
  then obtain sc1 l1 where first: "tree_sitter_mojo_external_scanner_scan text_ops created
      (text_of [ch_newline, ch CHR '' '', ch_tab, ch CHR ''x''])
      (\<lambda>t. t \<in> {NEWLINE, INDENT, STRING_START, COMMENT}) = Some (True, sc1, l1)"
    "t_symbol l1 = token_number INDENT" "scanner_abs sc1 ?s" by blast
  have "mojo_ok ?s" by (simp add: mojo_ok_def mojo_init_def)
  from line_tokens [OF text_lexer.ts_lexer_axioms first(3) this,
      of "text_of [ch_newline, ch CHR ''x'']" "[ch_newline]" "ch CHR ''x''" "[]"
        "\<lambda>t. t \<in> {DEDENT, STRING_START, COMMENT}"]
  have "\<exists>sc2 l2. tree_sitter_mojo_external_scanner_scan text_ops sc1
      (text_of [ch_newline, ch CHR ''x'']) (\<lambda>t. t \<in> {DEDENT, STRING_START, COMMENT}) =
      Some (True, sc2, l2) \<and> t_symbol l2 = token_number DEDENT \<and> t_end l2 = Some 0 \<and>
      scanner_abs sc2 mojo_init"
    using ind(2) bl by (auto simp: mojo_init_def text_of_def mlir_interior_def)
  with first(1,2) show ?thesis by blast
qed

section \<open>Strings\<close>

text \<open>C8: At a string prefix \<open>ps\<close> (any mix of the flag letters) followed by a quote, where only a
  string start is expected, the scanner reports \<open>STRING_START\<close> and pushes a delimiter with that
  quote and exactly the flags the prefix names; it is triple exactly when two more of the same
  quote (not a backquote) follow, and the token covers the prefix and the one or three
  quotes.\<close>

theorem string_start:
  assumes L: "ts_lexer L view" and abs: "scanner_abs sc s"
    and room: "length (m_delimiters s) + 1 < 4294967296"
    and inp: "t_input (view l) = ps @ q # rest" and ps: "list_all prefix_flag ps" and q: "is_quote q"
  shows "\<exists>sc' l' d. tree_sitter_mojo_external_scanner_scan L sc l (\<lambda>t. t = STRING_START) =
      Some (True, sc', l') \<and>
    opened_by d ps q (quote_triple q rest) \<and>
    scanner_abs sc' (s\<lparr>m_delimiters := m_delimiters s @ [d], m_inside := is_format d\<rparr>) \<and>
    t_symbol (view l') = token_number STRING_START \<and>
    t_end (view l') = Some (t_pos (view l) + length ps + (if quote_triple q rest then 3 else 1))"
  by (rule ts_lexer.scan_start_call [OF L abs room inp ps q])

lemma string_start_witness:
  "\<exists>sc' l' d. tree_sitter_mojo_external_scanner_scan text_ops created
      (text_of [ch CHR ''r'', ch_dquote, ch_dquote, ch_dquote, ch CHR ''x'']) (\<lambda>t. t = STRING_START) =
      Some (True, sc', l') \<and> is_raw d \<and> is_triple d \<and> \<not> is_format d \<and>
    scanner_abs sc' (mojo_init\<lparr>m_delimiters := [d], m_inside := False\<rparr>) \<and>
    t_end l' = Some 4"
proof -
  have "list_all prefix_flag [ch CHR ''r'']" "is_quote ch_dquote"
    "quote_triple ch_dquote [ch_dquote, ch_dquote, ch CHR ''x'']"
    by (simp_all add: prefix_flag_def raw_flag_def is_quote_def quote_triple_def)
  then show ?thesis
    using string_start [OF text_lexer.ts_lexer_axioms created_abs, of
        "text_of [ch CHR ''r'', ch_dquote, ch_dquote, ch_dquote, ch CHR ''x'']" "[ch CHR ''r'']"
        ch_dquote "[ch_dquote, ch_dquote, ch CHR ''x'']"]
    by (auto simp: mojo_init_def text_of_def opened_by_def raw_flag_def format_flag_def)
qed

text \<open>C9: Inside a string that is not triple, a non-empty run \<open>cs\<close> without interruption is one
  \<open>STRING_CONTENT\<close> token of exactly that length when the next character is the closing quote,
  a brace of an interpolated string, or a backslash of a string that is neither raw nor
  bytes; before a newline the call fails. The scanner is unchanged in each case.\<close>

theorem string_content:
  assumes L: "ts_lexer L view" and abs: "scanner_abs sc s" and ds: "m_delimiters s = ds @ [d]"
    and d: "is_quote (end_character d)" "\<not> is_triple d"
    and inp: "t_input (view l) = cs @ c # rest" and cs: "cs \<noteq> []" "\<forall>c \<in> set cs. \<not> interrupts d c"
    and c: "c = end_character d \<or> c = ch_newline \<or> (is_format d \<and> c \<in> {ch CHR ''{'', ch CHR ''}''}) \<or>
      (c = ch_backslash \<and> \<not> is_raw d \<and> \<not> is_bytes d)"
  shows "\<exists>l'. tree_sitter_mojo_external_scanner_scan L sc l (\<lambda>t. t = STRING_CONTENT) =
      Some (c \<noteq> ch_newline, sc, l') \<and>
    (c \<noteq> ch_newline \<longrightarrow> t_symbol (view l') = token_number STRING_CONTENT \<and>
      t_end (view l') = Some (t_pos (view l) + length cs))"
  by (rule ts_lexer.scan_content_call [OF L abs ds d inp cs c])

text \<open>A scanner inside a string, made by scanning the opening quote.\<close>

definition in_string :: "u8 \<Rightarrow> Scanner" where
  "in_string f = created\<lparr>delimiters := \<lparr>contents = Some (Some \<lparr>flags = f\<rparr> # replicate 7 None),
     asize = 1, capacity = 8\<rparr>\<rparr>"

lemma in_string_abs: "scanner_abs (in_string f) (mojo_init\<lparr>m_delimiters := [] @ [\<lparr>flags = f\<rparr>]\<rparr>)"
  using created_abs
  by (simp add: scanner_abs_def scanner_rep_def in_string_def mojo_init_def arr_rep_def arr_cells_def)

lemma dquote_delimiter:
  "end_character \<lparr>flags = DoubleQuote\<rparr> = ch_dquote" "\<not> is_triple \<lparr>flags = DoubleQuote\<rparr>"
  "\<not> is_raw \<lparr>flags = DoubleQuote\<rparr>" "\<not> is_bytes \<lparr>flags = DoubleQuote\<rparr>" "\<not> is_format \<lparr>flags = DoubleQuote\<rparr>"
  "is_quote ch_dquote"
  by (simp_all add: end_character_def is_triple_def is_raw_def is_bytes_def is_format_def
      flag_values is_quote_def)

lemma string_content_witness:
  "\<exists>l'. tree_sitter_mojo_external_scanner_scan text_ops (in_string DoubleQuote)
      (text_of [ch CHR ''a'', ch CHR ''{'', ch_dquote]) (\<lambda>t. t = STRING_CONTENT) =
      Some (True, in_string DoubleQuote, l') \<and> t_end l' = Some 2"
  using string_content [OF text_lexer.ts_lexer_axioms in_string_abs, of DoubleQuote "[]" "\<lparr>flags = DoubleQuote\<rparr>"
      "text_of [ch CHR ''a'', ch CHR ''{'', ch_dquote]" "[ch CHR ''a'', ch CHR ''{'']" ch_dquote "[]"]
    dquote_delimiter
  by (auto simp: mojo_init_def text_of_def interrupts_def numeral_2_eq_2)





text \<open>C15: In a raw string, escaped quotes and backslashes do not count as content: a raw string
  (not triple, not interpolated) whose content consists only of such pairs gives no
  \<open>STRING_CONTENT\<close> token, and the \<open>STRING_END\<close> token reaches from the content's start over the
  closing quote.\<close>

theorem raw_pairs_in_string_end:
  assumes L: "ts_lexer L view" and abs: "scanner_abs sc s" and ds: "m_delimiters s = ds @ [d]"
    and d: "is_quote (end_character d)" "\<not> is_triple d" "is_raw d" "\<not> is_format d"
    and xs: "\<forall>x \<in> set xs. x \<in> {end_character d, ch_backslash}"
    and inp: "t_input (view l) = concat (map (\<lambda>x. [ch_backslash, x]) xs) @ end_character d # rest"
  shows "\<exists>sc' l'. tree_sitter_mojo_external_scanner_scan L sc l (\<lambda>t. t = STRING_CONTENT) =
      Some (True, sc', l') \<and> t_symbol (view l') = token_number STRING_END \<and>
    t_end (view l') = Some (t_pos (view l) + 2 * length xs + 1) \<and>
    scanner_abs sc' (s\<lparr>m_delimiters := ds, m_inside := False\<rparr>)"
proof -
  note ops = ts_lexer.lookahead [OF L] ts_lexer.mark_end [OF L] ts_lexer.view_result_symbol [OF L]
    ts_lexer.view_advance [OF L]
  have rep: "arr_rep (delimiters sc) (ds @ [d])"
    using abs ds by (simp add: scanner_abs_def scanner_rep_def)
  obtain dq where pop: "array_pop (delimiters sc) = Some (d, dq)" "arr_rep dq ds"
    using arr.pop_rep [OF rep] by auto
  have "\<exists>l1. string_content_loop L sc d False False l = string_content_loop L sc d False False l1 \<and>
    t_input (view l1) = end_character d # rest \<and> t_pos (view l1) = t_pos (view l) + 2 * length xs"
    using xs inp
  proof (induction xs arbitrary: l)
    case Nil
    then show ?case by (intro exI [of _ l]) simp
  next
    case (Cons x xs)
    let ?m = "raw_backslash L d l"
    have hd: "text_lookahead (text_advance (text_advance (view l) False) False) \<notin> {ch_return, ch_newline}"
      using Cons.prems d(1) by (cases xs) (auto simp: text_lookahead_def is_quote_def)
    have m: "view ?m = text_advance (text_advance (view l) False) False"
      using Cons.prems hd by (auto simp: raw_backslash_def ops Let_def text_lookahead_def)
    have "string_content_loop L sc d False False l = string_content_loop L sc d False False ?m"
      using Cons.prems(2) d by (subst string_content_loop.simps) (simp add: ops Let_def)
    moreover have "t_input (view ?m) = concat (map (\<lambda>x. [ch_backslash, x]) xs) @ end_character d # rest"
      "t_pos (view ?m) = t_pos (view l) + 2"
      using m Cons.prems(2) by (simp_all add: t_pos_advance)
    ultimately show ?case using Cons.IH [of ?m] Cons.prems(1) by auto
  qed
  then obtain l1 where l1: "string_content_loop L sc d False False l = string_content_loop L sc d False False l1"
    "t_input (view l1) = end_character d # rest" "t_pos (view l1) = t_pos (view l) + 2 * length xs"
    by blast
  have la: "text_lookahead (view l1) = end_character d" using l1(2) by simp
  let ?sc = "sc\<lparr>delimiters := dq, inside_interpolated_string := False\<rparr>"
  have "string_content_loop L sc d False False l =
      Some (Return True ?sc (result_symbol L STRING_END (lx_mark_end L (advance L l1))))"
    using l1(1) ts_lexer.string_content_loop_quote [OF L la d(1,2), of sc False] pop(1)
    by (simp add: close_string_def)
  moreover have "scanner_abs ?sc (s\<lparr>m_delimiters := ds, m_inside := False\<rparr>)"
    using abs pop(2) by (simp add: scanner_abs_def scanner_rep_def)
  ultimately show ?thesis using scan_inside_string [OF abs ds, of L l] l1(2,3)
    by (simp add: ops t_pos_advance)
qed

lemma raw_pairs_in_string_end_witness:
  "\<exists>sc' l'. tree_sitter_mojo_external_scanner_scan text_ops (in_string 10)
      (text_of [92, 34, 34]) (\<lambda>t. t = STRING_CONTENT) = Some (True, sc', l') \<and>
    t_symbol l' = token_number STRING_END \<and> t_end l' = Some 3 \<and> scanner_abs sc' mojo_init"
proof -
  have d: "end_character \<lparr>flags = 10\<rparr> = 34" "\<not> is_triple \<lparr>flags = 10\<rparr>" "is_raw \<lparr>flags = 10\<rparr>"
    "\<not> is_format \<lparr>flags = 10\<rparr>" "is_quote 34"
    by (simp_all add: end_character_def is_triple_def is_raw_def is_format_def
        flag_values is_quote_def)
  show ?thesis
    using raw_pairs_in_string_end [OF text_lexer.ts_lexer_axioms in_string_abs, of 10 "[]"
        "\<lparr>flags = 10\<rparr>" "[34]" "text_of [92, 34, 34]" "[]"] d
    by (auto simp: mojo_init_def text_of_def)
qed

section \<open>MLIR fragments\<close>

text \<open>Inside an MLIR fragment, white space followed by an identifier is scanned as one
  \<open>MLIR_IDENT\<close> token that ends with the identifier's last character: the longest match, ended
  by the first character that is no letter, digit or underscore, or by the end of the
  input.\<close>

lemma mlir_ident_longest_match:
  assumes L: "ts_lexer L view"
    and valid: "mlir_interior valid" "\<not> error_recovery_mode valid"
    and inp: "t_input (view l) = ws @ cs @ rest"
    and ws: "\<forall>c \<in> set ws. c = ch CHR '' '' \<or> c = ch_tab"
    and cs: "\<forall>c \<in> set cs. ident_char c" "cs \<noteq> []" "ident_start (hd cs)"
    and stop: "rest = [] \<or> \<not> ident_char (hd rest)"
  shows "\<exists>l'. tree_sitter_mojo_external_scanner_scan L sc l valid = Some (True, sc, l') \<and>
    t_symbol (view l') = token_number MLIR_IDENT \<and>
    t_end (view l') = Some (t_pos (view l) + length ws + length cs)"
  using ts_lexer.scan_mlir_ident [OF L valid(1) inp ws cs stop] valid
  by (auto simp: tree_sitter_mojo_external_scanner_scan_def)

lemma mlir_ident_longest_match_witness:
  "\<exists>l'. tree_sitter_mojo_external_scanner_scan text_ops created
      (text_of [32, 105, 51, 50, 44]) (\<lambda>t. t = MLIR_IDENT) = Some (True, created, l') \<and>
    t_symbol l' = token_number MLIR_IDENT \<and> t_end l' = Some 4"
  using mlir_ident_longest_match [OF text_lexer.ts_lexer_axioms, of "\<lambda>t. t = MLIR_IDENT"
      "text_of [32, 105, 51, 50, 44]" "[32]" "[105, 51, 50]" "[44]" created]
  by (auto simp: mlir_interior_def error_recovery_mode_def text_of_def ident_char_def
      ident_start_def digit_def)

end
