(* ===== verification/Mojo_Dedents.thy ===== *)
theory Mojo_Dedents
  imports Mojo_Properties
begin

text \<open>
  The end of a file: white space and nothing else is left. Every call then closes one open indent,
  until only the bottom of the indent stack remains.
\<close>

section \<open>Sequences of calls\<close>




section \<open>One call\<close>


section \<open>All open indents are closed\<close>





end
