(* ===== verification/Mojo_Lex.thy ===== *)
theory Mojo_Lex
  imports Mojo_Lex_Tables
begin

text \<open>
  The generated function \<open>ts_lex\<close> of \<^verbatim>\<open>grammars/tree-sitter-mojo/src/parser.c\<close>, one definition
  for each \<open>case\<close> of its \<open>switch\<close>: the token the case accepts, if any, and the action its
  conditions choose, tried in the order of the source.
\<close>

definition ts_lex_0 :: lex_case where
  "ts_lex_0 eof c = (None,
     if eof then ADVANCE 55 else
     if c = ch CHR 0x0D then SKIP 52 else
     if c = ch CHR ''!'' then ADVANCE 21 else
     if c = ch CHR ''#'' then ADVANCE 160 else
     if c = ch CHR ''%'' then ADVANCE 100 else
     if c = ch CHR ''&'' then ADVANCE 102 else
     if c = ch CHR ''('' then ADVANCE 59 else
     if c = ch CHR '')'' then ADVANCE 60 else
     if c = ch CHR ''*'' then ADVANCE 63 else
     if c = ch CHR ''+'' then ADVANCE 94 else
     if c = ch CHR '','' then ADVANCE 61 else
     if c = ch CHR ''-'' then ADVANCE 89 else
     if c = ch CHR ''.'' then ADVANCE 58 else
     if c = ch CHR ''/'' then ADVANCE 97 else
     if c = ch CHR ''0'' then ADVANCE 138 else
     if c = ch CHR '':'' then ADVANCE 70 else
     if c = ch CHR '';'' then ADVANCE 56 else
     if c = ch CHR ''<'' then ADVANCE 106 else
     if c = ch CHR ''='' then ADVANCE 81 else
     if c = ch CHR ''>'' then ADVANCE 112 else
     if c = ch CHR ''@'' then ADVANCE 86 else
     if c = ch CHR ''['' then ADVANCE 73 else
     if c = ch CHR 0x5C then ADVANCE 132 else
     if c = ch CHR '']'' then ADVANCE 74 else
     if c = ch CHR ''^'' then ADVANCE 96 else
     if c = ch CHR ''e'' then ADVANCE 157 else
     if c = ch CHR ''{'' then ADVANCE 76 else
     if c = ch CHR ''|'' then ADVANCE 92 else
     if c = ch CHR ''}'' then ADVANCE 77 else
     if c = ch CHR ''~'' then ADVANCE 105 else
     if (ch CHR 0x09 \<le> c \<and> c \<le> ch CHR 0x0C) \<or> c = ch CHR '' '' \<or> c = 0x200B
          \<or> c = 0x2060 \<or> c = 0xFEFF then SKIP 52 else
     if ch CHR ''1'' \<le> c \<and> c \<le> ch CHR ''9'' then ADVANCE 139 else
     if in_set sym_identifier_character_set_1 685 c then ADVANCE 159 else
     END_STATE)"

definition ts_lex_1 :: lex_case where
  "ts_lex_1 eof c = (None,
     if c = ch CHR 0x0A then ADVANCE 161 else
     END_STATE)"

definition ts_lex_2 :: lex_case where
  "ts_lex_2 eof c = (None,
     if c = ch CHR 0x0A then ADVANCE 129 else
     END_STATE)"

definition ts_lex_3 :: lex_case where
  "ts_lex_3 eof c = (None,
     if c = ch CHR 0x0A then SKIP 3 else
     if c = ch CHR 0x0D then ADVANCE 134 else
     if c = ch CHR ''#'' then ADVANCE 135 else
     if c = ch CHR 0x5C then ADVANCE 133 else
     if c = ch CHR ''{'' then ADVANCE 76 else
     if c = ch CHR ''}'' then ADVANCE 77 else
     if (ch CHR 0x09 \<le> c \<and> c \<le> ch CHR 0x0C) \<or> c = ch CHR '' '' \<or> c = 0x200B
          \<or> c = 0x2060 \<or> c = 0xFEFF then ADVANCE 134 else
     if c \<noteq> 0 then ADVANCE 135 else
     END_STATE)"

definition ts_lex_4 :: lex_case where
  "ts_lex_4 eof c = (None,
     if c = ch CHR 0x0D then SKIP 4 else
     if c = ch CHR ''!'' then ADVANCE 21 else
     if c = ch CHR ''#'' then ADVANCE 160 else
     if c = ch CHR ''%'' then ADVANCE 99 else
     if c = ch CHR ''&'' then ADVANCE 101 else
     if c = ch CHR ''('' then ADVANCE 59 else
     if c = ch CHR '')'' then ADVANCE 60 else
     if c = ch CHR ''*'' then ADVANCE 64 else
     if c = ch CHR ''+'' then ADVANCE 93 else
     if c = ch CHR '','' then ADVANCE 61 else
     if c = ch CHR ''-'' then ADVANCE 90 else
     if c = ch CHR ''.'' then ADVANCE 58 else
     if c = ch CHR ''/'' then ADVANCE 98 else
     if c = ch CHR ''0'' then ADVANCE 138 else
     if c = ch CHR '':'' then ADVANCE 69 else
     if c = ch CHR '';'' then ADVANCE 56 else
     if c = ch CHR ''<'' then ADVANCE 107 else
     if c = ch CHR ''='' then ADVANCE 81 else
     if c = ch CHR ''>'' then ADVANCE 113 else
     if c = ch CHR ''@'' then ADVANCE 85 else
     if c = ch CHR ''['' then ADVANCE 73 else
     if c = ch CHR 0x5C then ADVANCE 11 else
     if c = ch CHR '']'' then ADVANCE 74 else
     if c = ch CHR ''^'' then ADVANCE 95 else
     if c = ch CHR ''e'' then ADVANCE 158 else
     if c = ch CHR ''{'' then ADVANCE 76 else
     if c = ch CHR ''|'' then ADVANCE 91 else
     if c = ch CHR ''}'' then ADVANCE 77 else
     if c = ch CHR ''~'' then ADVANCE 105 else
     if (ch CHR 0x09 \<le> c \<and> c \<le> ch CHR 0x0C) \<or> c = ch CHR '' '' \<or> c = 0x200B
          \<or> c = 0x2060 \<or> c = 0xFEFF then SKIP 4 else
     if ch CHR ''1'' \<le> c \<and> c \<le> ch CHR ''9'' then ADVANCE 139 else
     if in_set sym_identifier_character_set_1 685 c then ADVANCE 159 else
     END_STATE)"

definition ts_lex_5 :: lex_case where
  "ts_lex_5 eof c = (None,
     if c = ch CHR 0x0D then SKIP 5 else
     if c = ch CHR ''!'' then ADVANCE 20 else
     if c = ch CHR ''#'' then ADVANCE 160 else
     if c = ch CHR ''%'' then ADVANCE 100 else
     if c = ch CHR ''&'' then ADVANCE 102 else
     if c = ch CHR ''('' then ADVANCE 59 else
     if c = ch CHR ''*'' then ADVANCE 63 else
     if c = ch CHR ''+'' then ADVANCE 94 else
     if c = ch CHR '','' then ADVANCE 61 else
     if c = ch CHR ''-'' then ADVANCE 88 else
     if c = ch CHR ''.'' then ADVANCE 58 else
     if c = ch CHR ''/'' then ADVANCE 97 else
     if c = ch CHR ''0'' then ADVANCE 138 else
     if c = ch CHR '':'' then ADVANCE 70 else
     if c = ch CHR '';'' then ADVANCE 56 else
     if c = ch CHR ''<'' then ADVANCE 106 else
     if c = ch CHR ''='' then ADVANCE 81 else
     if c = ch CHR ''>'' then ADVANCE 112 else
     if c = ch CHR ''@'' then ADVANCE 86 else
     if c = ch CHR ''['' then ADVANCE 73 else
     if c = ch CHR 0x5C then ADVANCE 11 else
     if c = ch CHR ''^'' then ADVANCE 96 else
     if c = ch CHR ''e'' then ADVANCE 158 else
     if c = ch CHR ''{'' then ADVANCE 76 else
     if c = ch CHR ''|'' then ADVANCE 92 else
     if c = ch CHR ''~'' then ADVANCE 105 else
     if (ch CHR 0x09 \<le> c \<and> c \<le> ch CHR 0x0C) \<or> c = ch CHR '' '' \<or> c = 0x200B
          \<or> c = 0x2060 \<or> c = 0xFEFF then SKIP 5 else
     if ch CHR ''1'' \<le> c \<and> c \<le> ch CHR ''9'' then ADVANCE 139 else
     if in_set sym_identifier_character_set_1 685 c then ADVANCE 159 else
     END_STATE)"

definition ts_lex_6 :: lex_case where
  "ts_lex_6 eof c = (None,
     if c = ch CHR 0x0D then SKIP 6 else
     if c = ch CHR ''#'' then ADVANCE 160 else
     if c = ch CHR ''%'' then ADVANCE 22 else
     if c = ch CHR ''&'' then ADVANCE 23 else
     if c = ch CHR ''('' then ADVANCE 59 else
     if c = ch CHR ''*'' then ADVANCE 65 else
     if c = ch CHR ''+'' then ADVANCE 94 else
     if c = ch CHR ''-'' then ADVANCE 88 else
     if c = ch CHR ''.'' then ADVANCE 16 else
     if c = ch CHR ''/'' then ADVANCE 18 else
     if c = ch CHR ''0'' then ADVANCE 138 else
     if c = ch CHR '':'' then ADVANCE 69 else
     if c = ch CHR '';'' then ADVANCE 56 else
     if c = ch CHR ''<'' then ADVANCE 19 else
     if c = ch CHR ''='' then ADVANCE 80 else
     if c = ch CHR ''>'' then ADVANCE 31 else
     if c = ch CHR ''@'' then ADVANCE 24 else
     if c = ch CHR ''['' then ADVANCE 73 else
     if c = ch CHR 0x5C then ADVANCE 11 else
     if c = ch CHR ''^'' then ADVANCE 25 else
     if c = ch CHR ''e'' then ADVANCE 158 else
     if c = ch CHR ''{'' then ADVANCE 76 else
     if c = ch CHR ''|'' then ADVANCE 26 else
     if c = ch CHR ''~'' then ADVANCE 105 else
     if (ch CHR 0x09 \<le> c \<and> c \<le> ch CHR 0x0C) \<or> c = ch CHR '' '' \<or> c = 0x200B
          \<or> c = 0x2060 \<or> c = 0xFEFF then SKIP 6 else
     if ch CHR ''1'' \<le> c \<and> c \<le> ch CHR ''9'' then ADVANCE 139 else
     if in_set sym_identifier_character_set_1 685 c then ADVANCE 159 else
     END_STATE)"

definition ts_lex_7 :: lex_case where
  "ts_lex_7 eof c = (None,
     if c = ch CHR 0x0D then SKIP 7 else
     if c = ch CHR ''!'' then ADVANCE 21 else
     if c = ch CHR ''#'' then ADVANCE 160 else
     if c = ch CHR ''%'' then ADVANCE 100 else
     if c = ch CHR ''&'' then ADVANCE 102 else
     if c = ch CHR ''('' then ADVANCE 59 else
     if c = ch CHR '')'' then ADVANCE 60 else
     if c = ch CHR ''*'' then ADVANCE 63 else
     if c = ch CHR ''+'' then ADVANCE 94 else
     if c = ch CHR '','' then ADVANCE 61 else
     if c = ch CHR ''-'' then ADVANCE 89 else
     if c = ch CHR ''.'' then ADVANCE 57 else
     if c = ch CHR ''/'' then ADVANCE 97 else
     if c = ch CHR '':'' then ADVANCE 69 else
     if c = ch CHR '';'' then ADVANCE 56 else
     if c = ch CHR ''<'' then ADVANCE 106 else
     if c = ch CHR ''='' then ADVANCE 81 else
     if c = ch CHR ''>'' then ADVANCE 112 else
     if c = ch CHR ''@'' then ADVANCE 86 else
     if c = ch CHR ''['' then ADVANCE 73 else
     if c = ch CHR 0x5C then ADVANCE 11 else
     if c = ch CHR '']'' then ADVANCE 74 else
     if c = ch CHR ''^'' then ADVANCE 96 else
     if c = ch CHR ''{'' then ADVANCE 76 else
     if c = ch CHR ''|'' then ADVANCE 92 else
     if c = ch CHR ''}'' then ADVANCE 77 else
     if (ch CHR 0x09 \<le> c \<and> c \<le> ch CHR 0x0C) \<or> c = ch CHR '' '' \<or> c = 0x200B
          \<or> c = 0x2060 \<or> c = 0xFEFF then SKIP 7 else
     if in_set sym_identifier_character_set_1 685 c then ADVANCE 159 else
     END_STATE)"

definition ts_lex_8 :: lex_case where
  "ts_lex_8 eof c = (None,
     if c = ch CHR 0x0D then SKIP 8 else
     if c = ch CHR ''!'' then ADVANCE 20 else
     if c = ch CHR ''#'' then ADVANCE 160 else
     if c = ch CHR ''%'' then ADVANCE 100 else
     if c = ch CHR ''&'' then ADVANCE 102 else
     if c = ch CHR ''('' then ADVANCE 59 else
     if c = ch CHR ''*'' then ADVANCE 63 else
     if c = ch CHR ''+'' then ADVANCE 94 else
     if c = ch CHR '','' then ADVANCE 61 else
     if c = ch CHR ''-'' then ADVANCE 88 else
     if c = ch CHR ''.'' then ADVANCE 57 else
     if c = ch CHR ''/'' then ADVANCE 97 else
     if c = ch CHR '':'' then ADVANCE 70 else
     if c = ch CHR '';'' then ADVANCE 56 else
     if c = ch CHR ''<'' then ADVANCE 106 else
     if c = ch CHR ''='' then ADVANCE 81 else
     if c = ch CHR ''>'' then ADVANCE 112 else
     if c = ch CHR ''@'' then ADVANCE 86 else
     if c = ch CHR ''['' then ADVANCE 73 else
     if c = ch CHR 0x5C then ADVANCE 11 else
     if c = ch CHR ''^'' then ADVANCE 96 else
     if c = ch CHR ''|'' then ADVANCE 92 else
     if (ch CHR 0x09 \<le> c \<and> c \<le> ch CHR 0x0C) \<or> c = ch CHR '' '' \<or> c = 0x200B
          \<or> c = 0x2060 \<or> c = 0xFEFF then SKIP 8 else
     if in_set sym_identifier_character_set_1 685 c then ADVANCE 159 else
     END_STATE)"

definition ts_lex_9 :: lex_case where
  "ts_lex_9 eof c = (None,
     if c = ch CHR 0x0D then SKIP 9 else
     if c = ch CHR ''!'' then ADVANCE 20 else
     if c = ch CHR ''#'' then ADVANCE 160 else
     if c = ch CHR ''%'' then ADVANCE 100 else
     if c = ch CHR ''&'' then ADVANCE 102 else
     if c = ch CHR ''('' then ADVANCE 59 else
     if c = ch CHR '')'' then ADVANCE 60 else
     if c = ch CHR ''*'' then ADVANCE 63 else
     if c = ch CHR ''+'' then ADVANCE 94 else
     if c = ch CHR '','' then ADVANCE 61 else
     if c = ch CHR ''-'' then ADVANCE 88 else
     if c = ch CHR ''.'' then ADVANCE 57 else
     if c = ch CHR ''/'' then ADVANCE 97 else
     if c = ch CHR '':'' then ADVANCE 70 else
     if c = ch CHR '';'' then ADVANCE 56 else
     if c = ch CHR ''<'' then ADVANCE 106 else
     if c = ch CHR ''='' then ADVANCE 81 else
     if c = ch CHR ''>'' then ADVANCE 112 else
     if c = ch CHR ''@'' then ADVANCE 86 else
     if c = ch CHR ''['' then ADVANCE 73 else
     if c = ch CHR 0x5C then ADVANCE 11 else
     if c = ch CHR ''^'' then ADVANCE 96 else
     if c = ch CHR ''e'' then ADVANCE 158 else
     if c = ch CHR ''|'' then ADVANCE 92 else
     if (ch CHR 0x09 \<le> c \<and> c \<le> ch CHR 0x0C) \<or> c = ch CHR '' '' \<or> c = 0x200B
          \<or> c = 0x2060 \<or> c = 0xFEFF then SKIP 9 else
     if in_set sym_identifier_character_set_1 685 c then ADVANCE 159 else
     END_STATE)"

definition ts_lex_10 :: lex_case where
  "ts_lex_10 eof c = (None,
     if c = ch CHR 0x0D then SKIP 10 else
     if c = ch CHR ''#'' then ADVANCE 160 else
     if c = ch CHR ''('' then ADVANCE 59 else
     if c = ch CHR ''*'' then ADVANCE 62 else
     if c = ch CHR ''.'' then ADVANCE 57 else
     if c = ch CHR 0x5C then ADVANCE 11 else
     if c = ch CHR ''e'' then ADVANCE 158 else
     if (ch CHR 0x09 \<le> c \<and> c \<le> ch CHR 0x0C) \<or> c = ch CHR '' '' \<or> c = 0x200B
          \<or> c = 0x2060 \<or> c = 0xFEFF then SKIP 10 else
     if in_set sym_identifier_character_set_1 685 c then ADVANCE 159 else
     END_STATE)"

definition ts_lex_11 :: lex_case where
  "ts_lex_11 eof c = (None,
     if c = ch CHR 0x0D then ADVANCE 1 else
     if (\<not> eof \<and> c = 0) \<or> c = ch CHR 0x0A then ADVANCE 161 else
     END_STATE)"

definition ts_lex_12 :: lex_case where
  "ts_lex_12 eof c = (None,
     if c = ch CHR 0x0D then SKIP 12 else
     if c = ch CHR ''!'' then ADVANCE 21 else
     if c = ch CHR ''#'' then ADVANCE 160 else
     if c = ch CHR ''%'' then ADVANCE 99 else
     if c = ch CHR ''&'' then ADVANCE 101 else
     if c = ch CHR ''('' then ADVANCE 59 else
     if c = ch CHR '')'' then ADVANCE 60 else
     if c = ch CHR ''*'' then ADVANCE 64 else
     if c = ch CHR ''+'' then ADVANCE 93 else
     if c = ch CHR '','' then ADVANCE 61 else
     if c = ch CHR ''-'' then ADVANCE 90 else
     if c = ch CHR ''.'' then ADVANCE 58 else
     if c = ch CHR ''/'' then ADVANCE 98 else
     if c = ch CHR ''0'' then ADVANCE 138 else
     if c = ch CHR '':'' then ADVANCE 70 else
     if c = ch CHR '';'' then ADVANCE 56 else
     if c = ch CHR ''<'' then ADVANCE 107 else
     if c = ch CHR ''='' then ADVANCE 81 else
     if c = ch CHR ''>'' then ADVANCE 113 else
     if c = ch CHR ''@'' then ADVANCE 85 else
     if c = ch CHR ''['' then ADVANCE 73 else
     if c = ch CHR 0x5C then ADVANCE 11 else
     if c = ch CHR '']'' then ADVANCE 74 else
     if c = ch CHR ''^'' then ADVANCE 95 else
     if c = ch CHR ''e'' then ADVANCE 158 else
     if c = ch CHR ''{'' then ADVANCE 76 else
     if c = ch CHR ''|'' then ADVANCE 91 else
     if c = ch CHR ''}'' then ADVANCE 77 else
     if c = ch CHR ''~'' then ADVANCE 105 else
     if (ch CHR 0x09 \<le> c \<and> c \<le> ch CHR 0x0C) \<or> c = ch CHR '' '' \<or> c = 0x200B
          \<or> c = 0x2060 \<or> c = 0xFEFF then SKIP 12 else
     if ch CHR ''1'' \<le> c \<and> c \<le> ch CHR ''9'' then ADVANCE 139 else
     if in_set sym_identifier_character_set_1 685 c then ADVANCE 159 else
     END_STATE)"

definition ts_lex_13 :: lex_case where
  "ts_lex_13 eof c = (None,
     if c = ch CHR 0x0D then SKIP 13 else
     if c = ch CHR ''!'' then ADVANCE 20 else
     if c = ch CHR ''#'' then ADVANCE 160 else
     if c = ch CHR ''%'' then ADVANCE 100 else
     if c = ch CHR ''&'' then ADVANCE 102 else
     if c = ch CHR ''('' then ADVANCE 59 else
     if c = ch CHR ''*'' then ADVANCE 63 else
     if c = ch CHR ''+'' then ADVANCE 94 else
     if c = ch CHR '','' then ADVANCE 61 else
     if c = ch CHR ''-'' then ADVANCE 88 else
     if c = ch CHR ''.'' then ADVANCE 58 else
     if c = ch CHR ''/'' then ADVANCE 97 else
     if c = ch CHR ''0'' then ADVANCE 138 else
     if c = ch CHR '':'' then ADVANCE 69 else
     if c = ch CHR '';'' then ADVANCE 56 else
     if c = ch CHR ''<'' then ADVANCE 106 else
     if c = ch CHR ''='' then ADVANCE 81 else
     if c = ch CHR ''>'' then ADVANCE 112 else
     if c = ch CHR ''@'' then ADVANCE 86 else
     if c = ch CHR ''['' then ADVANCE 73 else
     if c = ch CHR 0x5C then ADVANCE 11 else
     if c = ch CHR ''^'' then ADVANCE 96 else
     if c = ch CHR ''e'' then ADVANCE 158 else
     if c = ch CHR ''{'' then ADVANCE 76 else
     if c = ch CHR ''|'' then ADVANCE 92 else
     if c = ch CHR ''~'' then ADVANCE 105 else
     if (ch CHR 0x09 \<le> c \<and> c \<le> ch CHR 0x0C) \<or> c = ch CHR '' '' \<or> c = 0x200B
          \<or> c = 0x2060 \<or> c = 0xFEFF then SKIP 13 else
     if ch CHR ''1'' \<le> c \<and> c \<le> ch CHR ''9'' then ADVANCE 139 else
     if in_set sym_identifier_character_set_1 685 c then ADVANCE 159 else
     END_STATE)"

definition ts_lex_14 :: lex_case where
  "ts_lex_14 eof c = (None,
     if c = ch CHR 0x0D then SKIP 14 else
     if c = ch CHR ''!'' then ADVANCE 21 else
     if c = ch CHR ''#'' then ADVANCE 160 else
     if c = ch CHR ''%'' then ADVANCE 99 else
     if c = ch CHR ''&'' then ADVANCE 101 else
     if c = ch CHR ''('' then ADVANCE 59 else
     if c = ch CHR '')'' then ADVANCE 60 else
     if c = ch CHR ''*'' then ADVANCE 64 else
     if c = ch CHR ''+'' then ADVANCE 93 else
     if c = ch CHR '','' then ADVANCE 61 else
     if c = ch CHR ''-'' then ADVANCE 90 else
     if c = ch CHR ''.'' then ADVANCE 57 else
     if c = ch CHR ''/'' then ADVANCE 98 else
     if c = ch CHR '':'' then ADVANCE 69 else
     if c = ch CHR '';'' then ADVANCE 56 else
     if c = ch CHR ''<'' then ADVANCE 107 else
     if c = ch CHR ''='' then ADVANCE 81 else
     if c = ch CHR ''>'' then ADVANCE 113 else
     if c = ch CHR ''@'' then ADVANCE 85 else
     if c = ch CHR ''['' then ADVANCE 73 else
     if c = ch CHR 0x5C then ADVANCE 11 else
     if c = ch CHR '']'' then ADVANCE 74 else
     if c = ch CHR ''^'' then ADVANCE 95 else
     if c = ch CHR ''{'' then ADVANCE 76 else
     if c = ch CHR ''|'' then ADVANCE 91 else
     if c = ch CHR ''}'' then ADVANCE 77 else
     if (ch CHR 0x09 \<le> c \<and> c \<le> ch CHR 0x0C) \<or> c = ch CHR '' '' \<or> c = 0x200B
          \<or> c = 0x2060 \<or> c = 0xFEFF then SKIP 14 else
     if in_set sym_identifier_character_set_1 685 c then ADVANCE 159 else
     END_STATE)"

definition ts_lex_15 :: lex_case where
  "ts_lex_15 eof c = (None,
     if c = ch CHR 0x0D then SKIP 15 else
     if c = ch CHR ''!'' then ADVANCE 21 else
     if c = ch CHR ''#'' then ADVANCE 160 else
     if c = ch CHR ''%'' then ADVANCE 99 else
     if c = ch CHR ''&'' then ADVANCE 101 else
     if c = ch CHR ''('' then ADVANCE 59 else
     if c = ch CHR '')'' then ADVANCE 60 else
     if c = ch CHR ''*'' then ADVANCE 64 else
     if c = ch CHR ''+'' then ADVANCE 93 else
     if c = ch CHR '','' then ADVANCE 61 else
     if c = ch CHR ''-'' then ADVANCE 90 else
     if c = ch CHR ''.'' then ADVANCE 57 else
     if c = ch CHR ''/'' then ADVANCE 98 else
     if c = ch CHR '':'' then ADVANCE 70 else
     if c = ch CHR '';'' then ADVANCE 56 else
     if c = ch CHR ''<'' then ADVANCE 107 else
     if c = ch CHR ''='' then ADVANCE 81 else
     if c = ch CHR ''>'' then ADVANCE 113 else
     if c = ch CHR ''@'' then ADVANCE 85 else
     if c = ch CHR ''['' then ADVANCE 73 else
     if c = ch CHR 0x5C then ADVANCE 11 else
     if c = ch CHR '']'' then ADVANCE 74 else
     if c = ch CHR ''^'' then ADVANCE 95 else
     if c = ch CHR ''{'' then ADVANCE 76 else
     if c = ch CHR ''|'' then ADVANCE 91 else
     if c = ch CHR ''}'' then ADVANCE 77 else
     if (ch CHR 0x09 \<le> c \<and> c \<le> ch CHR 0x0C) \<or> c = ch CHR '' '' \<or> c = 0x200B
          \<or> c = 0x2060 \<or> c = 0xFEFF then SKIP 15 else
     if in_set sym_identifier_character_set_1 685 c then ADVANCE 159 else
     END_STATE)"

definition ts_lex_16 :: lex_case where
  "ts_lex_16 eof c = (None,
     if c = ch CHR ''.'' then ADVANCE 17 else
     if ch CHR ''0'' \<le> c \<and> c \<le> ch CHR ''9'' then ADVANCE 145 else
     END_STATE)"

definition ts_lex_17 :: lex_case where
  "ts_lex_17 eof c = (None,
     if c = ch CHR ''.'' then ADVANCE 128 else
     END_STATE)"

definition ts_lex_18 :: lex_case where
  "ts_lex_18 eof c = (None,
     if c = ch CHR ''/'' then ADVANCE 28 else
     if c = ch CHR ''='' then ADVANCE 118 else
     END_STATE)"

definition ts_lex_19 :: lex_case where
  "ts_lex_19 eof c = (None,
     if c = ch CHR ''<'' then ADVANCE 29 else
     END_STATE)"

definition ts_lex_20 :: lex_case where
  "ts_lex_20 eof c = (None,
     if c = ch CHR ''='' then ADVANCE 110 else
     END_STATE)"

definition ts_lex_21 :: lex_case where
  "ts_lex_21 eof c = (None,
     if c = ch CHR ''='' then ADVANCE 110 else
     if ch CHR ''a'' \<le> c \<and> c \<le> ch CHR ''z'' then ADVANCE 136 else
     END_STATE)"

definition ts_lex_22 :: lex_case where
  "ts_lex_22 eof c = (None,
     if c = ch CHR ''='' then ADVANCE 121 else
     END_STATE)"

definition ts_lex_23 :: lex_case where
  "ts_lex_23 eof c = (None,
     if c = ch CHR ''='' then ADVANCE 125 else
     END_STATE)"

definition ts_lex_24 :: lex_case where
  "ts_lex_24 eof c = (None,
     if c = ch CHR ''='' then ADVANCE 119 else
     END_STATE)"

definition ts_lex_25 :: lex_case where
  "ts_lex_25 eof c = (None,
     if c = ch CHR ''='' then ADVANCE 126 else
     END_STATE)"

definition ts_lex_26 :: lex_case where
  "ts_lex_26 eof c = (None,
     if c = ch CHR ''='' then ADVANCE 127 else
     END_STATE)"

definition ts_lex_27 :: lex_case where
  "ts_lex_27 eof c = (None,
     if c = ch CHR ''='' then ADVANCE 122 else
     END_STATE)"

definition ts_lex_28 :: lex_case where
  "ts_lex_28 eof c = (None,
     if c = ch CHR ''='' then ADVANCE 120 else
     END_STATE)"

definition ts_lex_29 :: lex_case where
  "ts_lex_29 eof c = (None,
     if c = ch CHR ''='' then ADVANCE 124 else
     END_STATE)"

definition ts_lex_30 :: lex_case where
  "ts_lex_30 eof c = (None,
     if c = ch CHR ''='' then ADVANCE 123 else
     END_STATE)"

definition ts_lex_31 :: lex_case where
  "ts_lex_31 eof c = (None,
     if c = ch CHR ''>'' then ADVANCE 30 else
     END_STATE)"

definition ts_lex_32 :: lex_case where
  "ts_lex_32 eof c = (None,
     if c = ch CHR ''_'' then ADVANCE 38 else
     if c = ch CHR ''0'' \<or> c = ch CHR ''1'' then ADVANCE 141 else
     END_STATE)"

definition ts_lex_33 :: lex_case where
  "ts_lex_33 eof c = (None,
     if c = ch CHR ''_'' then ADVANCE 39 else
     if ch CHR ''0'' \<le> c \<and> c \<le> ch CHR ''7'' then ADVANCE 142 else
     END_STATE)"

definition ts_lex_34 :: lex_case where
  "ts_lex_34 eof c = (None,
     if c = ch CHR ''_'' then ADVANCE 42 else
     if (ch CHR ''0'' \<le> c \<and> c \<le> ch CHR ''9'') \<or> (ch CHR ''A'' \<le> c
          \<and> c \<le> ch CHR ''F'') \<or> (ch CHR ''a'' \<le> c \<and> c \<le> ch CHR ''f'') then ADVANCE 143 else
     END_STATE)"

definition ts_lex_35 :: lex_case where
  "ts_lex_35 eof c = (None,
     if c = ch CHR ''{'' then ADVANCE 51 else
     END_STATE)"

definition ts_lex_36 :: lex_case where
  "ts_lex_36 eof c = (None,
     if c = ch CHR ''}'' then ADVANCE 129 else
     if c \<noteq> 0 then ADVANCE 36 else
     END_STATE)"

definition ts_lex_37 :: lex_case where
  "ts_lex_37 eof c = (None,
     if c = ch CHR ''+'' \<or> c = ch CHR ''-'' then ADVANCE 40 else
     if ch CHR ''0'' \<le> c \<and> c \<le> ch CHR ''9'' then ADVANCE 146 else
     END_STATE)"

definition ts_lex_38 :: lex_case where
  "ts_lex_38 eof c = (None,
     if c = ch CHR ''0'' \<or> c = ch CHR ''1'' then ADVANCE 141 else
     END_STATE)"

definition ts_lex_39 :: lex_case where
  "ts_lex_39 eof c = (None,
     if ch CHR ''0'' \<le> c \<and> c \<le> ch CHR ''7'' then ADVANCE 142 else
     END_STATE)"

definition ts_lex_40 :: lex_case where
  "ts_lex_40 eof c = (None,
     if ch CHR ''0'' \<le> c \<and> c \<le> ch CHR ''9'' then ADVANCE 146 else
     END_STATE)"

definition ts_lex_41 :: lex_case where
  "ts_lex_41 eof c = (None,
     if (ch CHR ''0'' \<le> c \<and> c \<le> ch CHR ''9'') \<or> (ch CHR ''A'' \<le> c
          \<and> c \<le> ch CHR ''F'') \<or> (ch CHR ''a'' \<le> c \<and> c \<le> ch CHR ''f'') then ADVANCE 129 else
     END_STATE)"

definition ts_lex_42 :: lex_case where
  "ts_lex_42 eof c = (None,
     if (ch CHR ''0'' \<le> c \<and> c \<le> ch CHR ''9'') \<or> (ch CHR ''A'' \<le> c
          \<and> c \<le> ch CHR ''F'') \<or> (ch CHR ''a'' \<le> c \<and> c \<le> ch CHR ''f'') then ADVANCE 143 else
     END_STATE)"

definition ts_lex_43 :: lex_case where
  "ts_lex_43 eof c = (None,
     if (ch CHR ''0'' \<le> c \<and> c \<le> ch CHR ''9'') \<or> (ch CHR ''A'' \<le> c
          \<and> c \<le> ch CHR ''F'') \<or> (ch CHR ''a'' \<le> c \<and> c \<le> ch CHR ''f'') then ADVANCE 41 else
     END_STATE)"

definition ts_lex_44 :: lex_case where
  "ts_lex_44 eof c = (None,
     if (ch CHR ''0'' \<le> c \<and> c \<le> ch CHR ''9'') \<or> (ch CHR ''A'' \<le> c
          \<and> c \<le> ch CHR ''F'') \<or> (ch CHR ''a'' \<le> c \<and> c \<le> ch CHR ''f'') then ADVANCE 43 else
     END_STATE)"

definition ts_lex_45 :: lex_case where
  "ts_lex_45 eof c = (None,
     if (ch CHR ''0'' \<le> c \<and> c \<le> ch CHR ''9'') \<or> (ch CHR ''A'' \<le> c
          \<and> c \<le> ch CHR ''F'') \<or> (ch CHR ''a'' \<le> c \<and> c \<le> ch CHR ''f'') then ADVANCE 44 else
     END_STATE)"

definition ts_lex_46 :: lex_case where
  "ts_lex_46 eof c = (None,
     if (ch CHR ''0'' \<le> c \<and> c \<le> ch CHR ''9'') \<or> (ch CHR ''A'' \<le> c
          \<and> c \<le> ch CHR ''F'') \<or> (ch CHR ''a'' \<le> c \<and> c \<le> ch CHR ''f'') then ADVANCE 45 else
     END_STATE)"

definition ts_lex_47 :: lex_case where
  "ts_lex_47 eof c = (None,
     if (ch CHR ''0'' \<le> c \<and> c \<le> ch CHR ''9'') \<or> (ch CHR ''A'' \<le> c
          \<and> c \<le> ch CHR ''F'') \<or> (ch CHR ''a'' \<le> c \<and> c \<le> ch CHR ''f'') then ADVANCE 46 else
     END_STATE)"

definition ts_lex_48 :: lex_case where
  "ts_lex_48 eof c = (None,
     if (ch CHR ''0'' \<le> c \<and> c \<le> ch CHR ''9'') \<or> (ch CHR ''A'' \<le> c
          \<and> c \<le> ch CHR ''F'') \<or> (ch CHR ''a'' \<le> c \<and> c \<le> ch CHR ''f'') then ADVANCE 47 else
     END_STATE)"

definition ts_lex_49 :: lex_case where
  "ts_lex_49 eof c = (None,
     if (ch CHR ''0'' \<le> c \<and> c \<le> ch CHR ''9'') \<or> (ch CHR ''A'' \<le> c
          \<and> c \<le> ch CHR ''F'') \<or> (ch CHR ''a'' \<le> c \<and> c \<le> ch CHR ''f'') then ADVANCE 48 else
     END_STATE)"

definition ts_lex_50 :: lex_case where
  "ts_lex_50 eof c = (None,
     if ch CHR ''a'' \<le> c \<and> c \<le> ch CHR ''z'' then ADVANCE 136 else
     END_STATE)"

definition ts_lex_51 :: lex_case where
  "ts_lex_51 eof c = (None,
     if c \<noteq> 0 \<and> c \<noteq> ch CHR ''}'' then ADVANCE 36 else
     END_STATE)"

definition ts_lex_52 :: lex_case where
  "ts_lex_52 eof c = (None,
     if eof then ADVANCE 55 else
     if c = ch CHR 0x0D then SKIP 52 else
     if c = ch CHR ''!'' then ADVANCE 21 else
     if c = ch CHR ''#'' then ADVANCE 160 else
     if c = ch CHR ''%'' then ADVANCE 100 else
     if c = ch CHR ''&'' then ADVANCE 102 else
     if c = ch CHR ''('' then ADVANCE 59 else
     if c = ch CHR '')'' then ADVANCE 60 else
     if c = ch CHR ''*'' then ADVANCE 63 else
     if c = ch CHR ''+'' then ADVANCE 94 else
     if c = ch CHR '','' then ADVANCE 61 else
     if c = ch CHR ''-'' then ADVANCE 89 else
     if c = ch CHR ''.'' then ADVANCE 58 else
     if c = ch CHR ''/'' then ADVANCE 97 else
     if c = ch CHR ''0'' then ADVANCE 138 else
     if c = ch CHR '':'' then ADVANCE 70 else
     if c = ch CHR '';'' then ADVANCE 56 else
     if c = ch CHR ''<'' then ADVANCE 106 else
     if c = ch CHR ''='' then ADVANCE 81 else
     if c = ch CHR ''>'' then ADVANCE 112 else
     if c = ch CHR ''@'' then ADVANCE 86 else
     if c = ch CHR ''['' then ADVANCE 73 else
     if c = ch CHR 0x5C then ADVANCE 11 else
     if c = ch CHR '']'' then ADVANCE 74 else
     if c = ch CHR ''^'' then ADVANCE 96 else
     if c = ch CHR ''e'' then ADVANCE 157 else
     if c = ch CHR ''{'' then ADVANCE 76 else
     if c = ch CHR ''|'' then ADVANCE 92 else
     if c = ch CHR ''}'' then ADVANCE 77 else
     if c = ch CHR ''~'' then ADVANCE 105 else
     if (ch CHR 0x09 \<le> c \<and> c \<le> ch CHR 0x0C) \<or> c = ch CHR '' '' \<or> c = 0x200B
          \<or> c = 0x2060 \<or> c = 0xFEFF then SKIP 52 else
     if ch CHR ''1'' \<le> c \<and> c \<le> ch CHR ''9'' then ADVANCE 139 else
     if in_set sym_identifier_character_set_1 685 c then ADVANCE 159 else
     END_STATE)"

definition ts_lex_53 :: lex_case where
  "ts_lex_53 eof c = (None,
     if eof then ADVANCE 55 else
     if c = ch CHR 0x0D then SKIP 53 else
     if c = ch CHR ''!'' then ADVANCE 50 else
     if c = ch CHR ''#'' then ADVANCE 160 else
     if c = ch CHR ''&'' then ADVANCE 101 else
     if c = ch CHR ''('' then ADVANCE 59 else
     if c = ch CHR '')'' then ADVANCE 60 else
     if c = ch CHR ''*'' then ADVANCE 62 else
     if c = ch CHR ''+'' then ADVANCE 93 else
     if c = ch CHR '','' then ADVANCE 61 else
     if c = ch CHR ''-'' then ADVANCE 87 else
     if c = ch CHR ''.'' then ADVANCE 16 else
     if c = ch CHR ''0'' then ADVANCE 138 else
     if c = ch CHR '':'' then ADVANCE 69 else
     if c = ch CHR '';'' then ADVANCE 56 else
     if c = ch CHR ''='' then ADVANCE 80 else
     if c = ch CHR ''@'' then ADVANCE 85 else
     if c = ch CHR ''['' then ADVANCE 73 else
     if c = ch CHR 0x5C then ADVANCE 11 else
     if c = ch CHR '']'' then ADVANCE 74 else
     if c = ch CHR ''e'' then ADVANCE 158 else
     if c = ch CHR ''{'' then ADVANCE 76 else
     if c = ch CHR ''|'' then ADVANCE 91 else
     if c = ch CHR ''}'' then ADVANCE 77 else
     if c = ch CHR ''~'' then ADVANCE 105 else
     if (ch CHR 0x09 \<le> c \<and> c \<le> ch CHR 0x0C) \<or> c = ch CHR '' '' \<or> c = 0x200B
          \<or> c = 0x2060 \<or> c = 0xFEFF then SKIP 53 else
     if ch CHR ''1'' \<le> c \<and> c \<le> ch CHR ''9'' then ADVANCE 139 else
     if in_set sym_identifier_character_set_1 685 c then ADVANCE 159 else
     END_STATE)"

definition ts_lex_54 :: lex_case where
  "ts_lex_54 eof c = (None,
     if eof then ADVANCE 55 else
     if c = ch CHR 0x0D then SKIP 54 else
     if c = ch CHR ''#'' then ADVANCE 160 else
     if c = ch CHR ''('' then ADVANCE 59 else
     if c = ch CHR ''*'' then ADVANCE 62 else
     if c = ch CHR ''+'' then ADVANCE 93 else
     if c = ch CHR ''-'' then ADVANCE 87 else
     if c = ch CHR ''.'' then ADVANCE 16 else
     if c = ch CHR ''0'' then ADVANCE 138 else
     if c = ch CHR ''@'' then ADVANCE 85 else
     if c = ch CHR ''['' then ADVANCE 73 else
     if c = ch CHR 0x5C then ADVANCE 11 else
     if c = ch CHR ''e'' then ADVANCE 157 else
     if c = ch CHR ''{'' then ADVANCE 76 else
     if c = ch CHR ''~'' then ADVANCE 105 else
     if (ch CHR 0x09 \<le> c \<and> c \<le> ch CHR 0x0C) \<or> c = ch CHR '' '' \<or> c = 0x200B
          \<or> c = 0x2060 \<or> c = 0xFEFF then SKIP 54 else
     if ch CHR ''1'' \<le> c \<and> c \<le> ch CHR ''9'' then ADVANCE 139 else
     if in_set sym_identifier_character_set_1 685 c then ADVANCE 159 else
     END_STATE)"

definition ts_lex_55 :: lex_case where
  "ts_lex_55 eof c = (Some ts_builtin_sym_end,
     END_STATE)"

definition ts_lex_56 :: lex_case where
  "ts_lex_56 eof c = (Some anon_sym_SEMI,
     END_STATE)"

definition ts_lex_57 :: lex_case where
  "ts_lex_57 eof c = (Some anon_sym_DOT,
     END_STATE)"

definition ts_lex_58 :: lex_case where
  "ts_lex_58 eof c = (Some anon_sym_DOT,
     if c = ch CHR ''.'' then ADVANCE 17 else
     if ch CHR ''0'' \<le> c \<and> c \<le> ch CHR ''9'' then ADVANCE 145 else
     END_STATE)"

definition ts_lex_59 :: lex_case where
  "ts_lex_59 eof c = (Some anon_sym_LPAREN,
     END_STATE)"

definition ts_lex_60 :: lex_case where
  "ts_lex_60 eof c = (Some anon_sym_RPAREN,
     END_STATE)"

definition ts_lex_61 :: lex_case where
  "ts_lex_61 eof c = (Some anon_sym_COMMA,
     END_STATE)"

definition ts_lex_62 :: lex_case where
  "ts_lex_62 eof c = (Some anon_sym_STAR,
     END_STATE)"

definition ts_lex_63 :: lex_case where
  "ts_lex_63 eof c = (Some anon_sym_STAR,
     if c = ch CHR ''*'' then ADVANCE 79 else
     if c = ch CHR ''='' then ADVANCE 117 else
     END_STATE)"

definition ts_lex_64 :: lex_case where
  "ts_lex_64 eof c = (Some anon_sym_STAR,
     if c = ch CHR ''*'' then ADVANCE 78 else
     END_STATE)"

definition ts_lex_65 :: lex_case where
  "ts_lex_65 eof c = (Some anon_sym_STAR,
     if c = ch CHR ''*'' then ADVANCE 27 else
     if c = ch CHR ''='' then ADVANCE 117 else
     END_STATE)"

definition ts_lex_66 :: lex_case where
  "ts_lex_66 eof c = (Some anon_sym_GT_GT,
     END_STATE)"

definition ts_lex_67 :: lex_case where
  "ts_lex_67 eof c = (Some anon_sym_GT_GT,
     if c = ch CHR ''='' then ADVANCE 123 else
     END_STATE)"

definition ts_lex_68 :: lex_case where
  "ts_lex_68 eof c = (Some anon_sym_COLON_EQ,
     END_STATE)"

definition ts_lex_69 :: lex_case where
  "ts_lex_69 eof c = (Some anon_sym_COLON,
     END_STATE)"

definition ts_lex_70 :: lex_case where
  "ts_lex_70 eof c = (Some anon_sym_COLON,
     if c = ch CHR ''='' then ADVANCE 68 else
     END_STATE)"

definition ts_lex_71 :: lex_case where
  "ts_lex_71 eof c = (Some anon_sym_except,
     if c = ch CHR ''*'' then ADVANCE 84 else
     if in_set sym_identifier_character_set_2 800 c then ADVANCE 159 else
     END_STATE)"

definition ts_lex_72 :: lex_case where
  "ts_lex_72 eof c = (Some anon_sym_except,
     if in_set sym_identifier_character_set_2 800 c then ADVANCE 159 else
     END_STATE)"

definition ts_lex_73 :: lex_case where
  "ts_lex_73 eof c = (Some anon_sym_LBRACK,
     END_STATE)"

definition ts_lex_74 :: lex_case where
  "ts_lex_74 eof c = (Some anon_sym_RBRACK,
     END_STATE)"

definition ts_lex_75 :: lex_case where
  "ts_lex_75 eof c = (Some anon_sym_DASH_GT,
     END_STATE)"

definition ts_lex_76 :: lex_case where
  "ts_lex_76 eof c = (Some anon_sym_LBRACE,
     END_STATE)"

definition ts_lex_77 :: lex_case where
  "ts_lex_77 eof c = (Some anon_sym_RBRACE,
     END_STATE)"

definition ts_lex_78 :: lex_case where
  "ts_lex_78 eof c = (Some anon_sym_STAR_STAR,
     END_STATE)"

definition ts_lex_79 :: lex_case where
  "ts_lex_79 eof c = (Some anon_sym_STAR_STAR,
     if c = ch CHR ''='' then ADVANCE 122 else
     END_STATE)"

definition ts_lex_80 :: lex_case where
  "ts_lex_80 eof c = (Some anon_sym_EQ,
     END_STATE)"

definition ts_lex_81 :: lex_case where
  "ts_lex_81 eof c = (Some anon_sym_EQ,
     if c = ch CHR ''='' then ADVANCE 109 else
     END_STATE)"

definition ts_lex_82 :: lex_case where
  "ts_lex_82 eof c = (Some anon_sym_SLASH_SLASH,
     END_STATE)"

definition ts_lex_83 :: lex_case where
  "ts_lex_83 eof c = (Some anon_sym_SLASH_SLASH,
     if c = ch CHR ''='' then ADVANCE 120 else
     END_STATE)"

definition ts_lex_84 :: lex_case where
  "ts_lex_84 eof c = (Some anon_sym_except_STAR,
     END_STATE)"

definition ts_lex_85 :: lex_case where
  "ts_lex_85 eof c = (Some anon_sym_AT,
     END_STATE)"

definition ts_lex_86 :: lex_case where
  "ts_lex_86 eof c = (Some anon_sym_AT,
     if c = ch CHR ''='' then ADVANCE 119 else
     END_STATE)"

definition ts_lex_87 :: lex_case where
  "ts_lex_87 eof c = (Some anon_sym_DASH,
     END_STATE)"

definition ts_lex_88 :: lex_case where
  "ts_lex_88 eof c = (Some anon_sym_DASH,
     if c = ch CHR ''='' then ADVANCE 116 else
     END_STATE)"

definition ts_lex_89 :: lex_case where
  "ts_lex_89 eof c = (Some anon_sym_DASH,
     if c = ch CHR ''='' then ADVANCE 116 else
     if c = ch CHR ''>'' then ADVANCE 75 else
     END_STATE)"

definition ts_lex_90 :: lex_case where
  "ts_lex_90 eof c = (Some anon_sym_DASH,
     if c = ch CHR ''>'' then ADVANCE 75 else
     END_STATE)"

definition ts_lex_91 :: lex_case where
  "ts_lex_91 eof c = (Some anon_sym_PIPE,
     END_STATE)"

definition ts_lex_92 :: lex_case where
  "ts_lex_92 eof c = (Some anon_sym_PIPE,
     if c = ch CHR ''='' then ADVANCE 127 else
     END_STATE)"

definition ts_lex_93 :: lex_case where
  "ts_lex_93 eof c = (Some anon_sym_PLUS,
     END_STATE)"

definition ts_lex_94 :: lex_case where
  "ts_lex_94 eof c = (Some anon_sym_PLUS,
     if c = ch CHR ''='' then ADVANCE 115 else
     END_STATE)"

definition ts_lex_95 :: lex_case where
  "ts_lex_95 eof c = (Some anon_sym_CARET,
     END_STATE)"

definition ts_lex_96 :: lex_case where
  "ts_lex_96 eof c = (Some anon_sym_CARET,
     if c = ch CHR ''='' then ADVANCE 126 else
     END_STATE)"

definition ts_lex_97 :: lex_case where
  "ts_lex_97 eof c = (Some anon_sym_SLASH,
     if c = ch CHR ''/'' then ADVANCE 83 else
     if c = ch CHR ''='' then ADVANCE 118 else
     END_STATE)"

definition ts_lex_98 :: lex_case where
  "ts_lex_98 eof c = (Some anon_sym_SLASH,
     if c = ch CHR ''/'' then ADVANCE 82 else
     END_STATE)"

definition ts_lex_99 :: lex_case where
  "ts_lex_99 eof c = (Some anon_sym_PERCENT,
     END_STATE)"

definition ts_lex_100 :: lex_case where
  "ts_lex_100 eof c = (Some anon_sym_PERCENT,
     if c = ch CHR ''='' then ADVANCE 121 else
     END_STATE)"

definition ts_lex_101 :: lex_case where
  "ts_lex_101 eof c = (Some anon_sym_AMP,
     END_STATE)"

definition ts_lex_102 :: lex_case where
  "ts_lex_102 eof c = (Some anon_sym_AMP,
     if c = ch CHR ''='' then ADVANCE 125 else
     END_STATE)"

definition ts_lex_103 :: lex_case where
  "ts_lex_103 eof c = (Some anon_sym_LT_LT,
     END_STATE)"

definition ts_lex_104 :: lex_case where
  "ts_lex_104 eof c = (Some anon_sym_LT_LT,
     if c = ch CHR ''='' then ADVANCE 124 else
     END_STATE)"

definition ts_lex_105 :: lex_case where
  "ts_lex_105 eof c = (Some anon_sym_TILDE,
     END_STATE)"

definition ts_lex_106 :: lex_case where
  "ts_lex_106 eof c = (Some anon_sym_LT,
     if c = ch CHR ''<'' then ADVANCE 104 else
     if c = ch CHR ''='' then ADVANCE 108 else
     if c = ch CHR ''>'' then ADVANCE 114 else
     END_STATE)"

definition ts_lex_107 :: lex_case where
  "ts_lex_107 eof c = (Some anon_sym_LT,
     if c = ch CHR ''<'' then ADVANCE 103 else
     if c = ch CHR ''='' then ADVANCE 108 else
     if c = ch CHR ''>'' then ADVANCE 114 else
     END_STATE)"

definition ts_lex_108 :: lex_case where
  "ts_lex_108 eof c = (Some anon_sym_LT_EQ,
     END_STATE)"

definition ts_lex_109 :: lex_case where
  "ts_lex_109 eof c = (Some anon_sym_EQ_EQ,
     END_STATE)"

definition ts_lex_110 :: lex_case where
  "ts_lex_110 eof c = (Some anon_sym_BANG_EQ,
     END_STATE)"

definition ts_lex_111 :: lex_case where
  "ts_lex_111 eof c = (Some anon_sym_GT_EQ,
     END_STATE)"

definition ts_lex_112 :: lex_case where
  "ts_lex_112 eof c = (Some anon_sym_GT,
     if c = ch CHR ''='' then ADVANCE 111 else
     if c = ch CHR ''>'' then ADVANCE 67 else
     END_STATE)"

definition ts_lex_113 :: lex_case where
  "ts_lex_113 eof c = (Some anon_sym_GT,
     if c = ch CHR ''='' then ADVANCE 111 else
     if c = ch CHR ''>'' then ADVANCE 66 else
     END_STATE)"

definition ts_lex_114 :: lex_case where
  "ts_lex_114 eof c = (Some anon_sym_LT_GT,
     END_STATE)"

definition ts_lex_115 :: lex_case where
  "ts_lex_115 eof c = (Some anon_sym_PLUS_EQ,
     END_STATE)"

definition ts_lex_116 :: lex_case where
  "ts_lex_116 eof c = (Some anon_sym_DASH_EQ,
     END_STATE)"

definition ts_lex_117 :: lex_case where
  "ts_lex_117 eof c = (Some anon_sym_STAR_EQ,
     END_STATE)"

definition ts_lex_118 :: lex_case where
  "ts_lex_118 eof c = (Some anon_sym_SLASH_EQ,
     END_STATE)"

definition ts_lex_119 :: lex_case where
  "ts_lex_119 eof c = (Some anon_sym_AT_EQ,
     END_STATE)"

definition ts_lex_120 :: lex_case where
  "ts_lex_120 eof c = (Some anon_sym_SLASH_SLASH_EQ,
     END_STATE)"

definition ts_lex_121 :: lex_case where
  "ts_lex_121 eof c = (Some anon_sym_PERCENT_EQ,
     END_STATE)"

definition ts_lex_122 :: lex_case where
  "ts_lex_122 eof c = (Some anon_sym_STAR_STAR_EQ,
     END_STATE)"

definition ts_lex_123 :: lex_case where
  "ts_lex_123 eof c = (Some anon_sym_GT_GT_EQ,
     END_STATE)"

definition ts_lex_124 :: lex_case where
  "ts_lex_124 eof c = (Some anon_sym_LT_LT_EQ,
     END_STATE)"

definition ts_lex_125 :: lex_case where
  "ts_lex_125 eof c = (Some anon_sym_AMP_EQ,
     END_STATE)"

definition ts_lex_126 :: lex_case where
  "ts_lex_126 eof c = (Some anon_sym_CARET_EQ,
     END_STATE)"

definition ts_lex_127 :: lex_case where
  "ts_lex_127 eof c = (Some anon_sym_PIPE_EQ,
     END_STATE)"

definition ts_lex_128 :: lex_case where
  "ts_lex_128 eof c = (Some sym_ellipsis,
     END_STATE)"

definition ts_lex_129 :: lex_case where
  "ts_lex_129 eof c = (Some sym_escape_sequence,
     END_STATE)"

definition ts_lex_130 :: lex_case where
  "ts_lex_130 eof c = (Some sym_escape_sequence,
     if ch CHR ''0'' \<le> c \<and> c \<le> ch CHR ''9'' then ADVANCE 129 else
     END_STATE)"

definition ts_lex_131 :: lex_case where
  "ts_lex_131 eof c = (Some sym_escape_sequence,
     if ch CHR ''0'' \<le> c \<and> c \<le> ch CHR ''9'' then ADVANCE 130 else
     END_STATE)"

definition ts_lex_132 :: lex_case where
  "ts_lex_132 eof c = (Some anon_sym_BSLASH,
     ADVANCE_MAP
       [(0, 161), (of_char CHR 0x0A, 129), (of_char CHR 0x0D, 2), (of_char CHR ''N'', 35),
        (of_char CHR ''U'', 49), (of_char CHR ''u'', 45), (of_char CHR ''x'', 43), (of_char CHR 0x22, 129),
        (of_char CHR 0x27, 129), (of_char CHR 0x5C, 129), (of_char CHR ''a'', 129), (of_char CHR ''b'', 129),
        (of_char CHR ''f'', 129), (of_char CHR ''n'', 129), (of_char CHR ''r'', 129), (of_char CHR ''t'', 129),
        (of_char CHR ''v'', 129)] c (
     if ch CHR ''0'' \<le> c \<and> c \<le> ch CHR ''9'' then ADVANCE 131 else
     END_STATE))"

definition ts_lex_133 :: lex_case where
  "ts_lex_133 eof c = (Some aux_sym_format_specifier_token1,
     if \<not> eof \<and> c = 0 then ADVANCE 135 else
     if c = ch CHR 0x0D then ADVANCE 135 else
     if c \<noteq> 0 \<and> c \<noteq> ch CHR 0x0A \<and> c \<noteq> ch CHR ''{''
          \<and> c \<noteq> ch CHR ''}'' then ADVANCE 135 else
     END_STATE)"

definition ts_lex_134 :: lex_case where
  "ts_lex_134 eof c = (Some aux_sym_format_specifier_token1,
     ADVANCE_MAP
       [(of_char CHR 0x0D, 134), (of_char CHR ''#'', 135), (of_char CHR 0x5C, 133), (of_char CHR 0x09, 134),
        (0xB, 134), (of_char CHR 0x0C, 134), (of_char CHR '' '', 134), (0x200B, 134),
        (0x2060, 134), (0xFEFF, 134)] c (
     if c \<noteq> 0 \<and> (c < ch CHR 0x09 \<or> ch CHR 0x0D < c) \<and> c \<noteq> ch CHR ''{''
          \<and> c \<noteq> ch CHR ''}'' then ADVANCE 135 else
     END_STATE))"

definition ts_lex_135 :: lex_case where
  "ts_lex_135 eof c = (Some aux_sym_format_specifier_token1,
     if c \<noteq> 0 \<and> c \<noteq> ch CHR 0x0A \<and> c \<noteq> ch CHR ''{''
          \<and> c \<noteq> ch CHR ''}'' then ADVANCE 135 else
     END_STATE)"

definition ts_lex_136 :: lex_case where
  "ts_lex_136 eof c = (Some sym_type_conversion,
     END_STATE)"

definition ts_lex_137 :: lex_case where
  "ts_lex_137 eof c = (Some sym_integer,
     END_STATE)"

definition ts_lex_138 :: lex_case where
  "ts_lex_138 eof c = (Some sym_integer,
     ADVANCE_MAP
       [(of_char CHR ''.'', 147), (of_char CHR ''_'', 140), (of_char CHR ''B'', 32), (of_char CHR ''b'', 32),
        (of_char CHR ''E'', 37), (of_char CHR ''e'', 37), (of_char CHR ''O'', 33), (of_char CHR ''o'', 33),
        (of_char CHR ''X'', 34), (of_char CHR ''x'', 34), (of_char CHR ''J'', 137), (of_char CHR ''L'', 137),
        (of_char CHR ''j'', 137), (of_char CHR ''l'', 137)] c (
     if ch CHR ''0'' \<le> c \<and> c \<le> ch CHR ''9'' then ADVANCE 139 else
     END_STATE))"

definition ts_lex_139 :: lex_case where
  "ts_lex_139 eof c = (Some sym_integer,
     ADVANCE_MAP
       [(of_char CHR ''.'', 147), (of_char CHR ''_'', 140), (of_char CHR ''E'', 37), (of_char CHR ''e'', 37),
        (of_char CHR ''J'', 137), (of_char CHR ''L'', 137), (of_char CHR ''j'', 137), (of_char CHR ''l'', 137)] c (
     if ch CHR ''0'' \<le> c \<and> c \<le> ch CHR ''9'' then ADVANCE 139 else
     END_STATE))"

definition ts_lex_140 :: lex_case where
  "ts_lex_140 eof c = (Some sym_integer,
     if c = ch CHR ''.'' then ADVANCE 147 else
     if c = ch CHR ''E'' \<or> c = ch CHR ''e'' then ADVANCE 37 else
     if c = ch CHR ''J'' \<or> c = ch CHR ''L'' \<or> c = ch CHR ''j'' \<or> c = ch CHR ''l'' then ADVANCE 137 else
     if ch CHR ''0'' \<le> c \<and> c \<le> ch CHR ''9'' then ADVANCE 139 else
     END_STATE)"

definition ts_lex_141 :: lex_case where
  "ts_lex_141 eof c = (Some sym_integer,
     if c = ch CHR ''_'' then ADVANCE 38 else
     if c = ch CHR ''L'' \<or> c = ch CHR ''l'' then ADVANCE 137 else
     if c = ch CHR ''0'' \<or> c = ch CHR ''1'' then ADVANCE 141 else
     END_STATE)"

definition ts_lex_142 :: lex_case where
  "ts_lex_142 eof c = (Some sym_integer,
     if c = ch CHR ''_'' then ADVANCE 39 else
     if c = ch CHR ''L'' \<or> c = ch CHR ''l'' then ADVANCE 137 else
     if ch CHR ''0'' \<le> c \<and> c \<le> ch CHR ''7'' then ADVANCE 142 else
     END_STATE)"

definition ts_lex_143 :: lex_case where
  "ts_lex_143 eof c = (Some sym_integer,
     if c = ch CHR ''_'' then ADVANCE 42 else
     if c = ch CHR ''L'' \<or> c = ch CHR ''l'' then ADVANCE 137 else
     if (ch CHR ''0'' \<le> c \<and> c \<le> ch CHR ''9'') \<or> (ch CHR ''A'' \<le> c
          \<and> c \<le> ch CHR ''F'') \<or> (ch CHR ''a'' \<le> c \<and> c \<le> ch CHR ''f'') then ADVANCE 143 else
     END_STATE)"

definition ts_lex_144 :: lex_case where
  "ts_lex_144 eof c = (Some sym_float,
     END_STATE)"

definition ts_lex_145 :: lex_case where
  "ts_lex_145 eof c = (Some sym_float,
     if c = ch CHR ''_'' then ADVANCE 147 else
     if c = ch CHR ''E'' \<or> c = ch CHR ''e'' then ADVANCE 37 else
     if c = ch CHR ''J'' \<or> c = ch CHR ''j'' then ADVANCE 144 else
     if ch CHR ''0'' \<le> c \<and> c \<le> ch CHR ''9'' then ADVANCE 145 else
     END_STATE)"

definition ts_lex_146 :: lex_case where
  "ts_lex_146 eof c = (Some sym_float,
     if c = ch CHR ''_'' then ADVANCE 148 else
     if c = ch CHR ''J'' \<or> c = ch CHR ''j'' then ADVANCE 144 else
     if ch CHR ''0'' \<le> c \<and> c \<le> ch CHR ''9'' then ADVANCE 146 else
     END_STATE)"

definition ts_lex_147 :: lex_case where
  "ts_lex_147 eof c = (Some sym_float,
     if c = ch CHR ''E'' \<or> c = ch CHR ''e'' then ADVANCE 37 else
     if c = ch CHR ''J'' \<or> c = ch CHR ''j'' then ADVANCE 144 else
     if ch CHR ''0'' \<le> c \<and> c \<le> ch CHR ''9'' then ADVANCE 145 else
     END_STATE)"

definition ts_lex_148 :: lex_case where
  "ts_lex_148 eof c = (Some sym_float,
     if c = ch CHR ''J'' \<or> c = ch CHR ''j'' then ADVANCE 144 else
     if ch CHR ''0'' \<le> c \<and> c \<le> ch CHR ''9'' then ADVANCE 146 else
     END_STATE)"

definition ts_lex_149 :: lex_case where
  "ts_lex_149 eof c = (Some sym_identifier,
     if c = ch CHR ''c'' then ADVANCE 151 else
     if in_set sym_identifier_character_set_2 800 c then ADVANCE 159 else
     END_STATE)"

definition ts_lex_150 :: lex_case where
  "ts_lex_150 eof c = (Some sym_identifier,
     if c = ch CHR ''c'' then ADVANCE 152 else
     if in_set sym_identifier_character_set_2 800 c then ADVANCE 159 else
     END_STATE)"

definition ts_lex_151 :: lex_case where
  "ts_lex_151 eof c = (Some sym_identifier,
     if c = ch CHR ''e'' then ADVANCE 153 else
     if in_set sym_identifier_character_set_2 800 c then ADVANCE 159 else
     END_STATE)"

definition ts_lex_152 :: lex_case where
  "ts_lex_152 eof c = (Some sym_identifier,
     if c = ch CHR ''e'' then ADVANCE 154 else
     if in_set sym_identifier_character_set_2 800 c then ADVANCE 159 else
     END_STATE)"

definition ts_lex_153 :: lex_case where
  "ts_lex_153 eof c = (Some sym_identifier,
     if c = ch CHR ''p'' then ADVANCE 155 else
     if in_set sym_identifier_character_set_2 800 c then ADVANCE 159 else
     END_STATE)"

definition ts_lex_154 :: lex_case where
  "ts_lex_154 eof c = (Some sym_identifier,
     if c = ch CHR ''p'' then ADVANCE 156 else
     if in_set sym_identifier_character_set_2 800 c then ADVANCE 159 else
     END_STATE)"

definition ts_lex_155 :: lex_case where
  "ts_lex_155 eof c = (Some sym_identifier,
     if c = ch CHR ''t'' then ADVANCE 71 else
     if in_set sym_identifier_character_set_2 800 c then ADVANCE 159 else
     END_STATE)"

definition ts_lex_156 :: lex_case where
  "ts_lex_156 eof c = (Some sym_identifier,
     if c = ch CHR ''t'' then ADVANCE 72 else
     if in_set sym_identifier_character_set_2 800 c then ADVANCE 159 else
     END_STATE)"

definition ts_lex_157 :: lex_case where
  "ts_lex_157 eof c = (Some sym_identifier,
     if c = ch CHR ''x'' then ADVANCE 149 else
     if in_set sym_identifier_character_set_2 800 c then ADVANCE 159 else
     END_STATE)"

definition ts_lex_158 :: lex_case where
  "ts_lex_158 eof c = (Some sym_identifier,
     if c = ch CHR ''x'' then ADVANCE 150 else
     if in_set sym_identifier_character_set_2 800 c then ADVANCE 159 else
     END_STATE)"

definition ts_lex_159 :: lex_case where
  "ts_lex_159 eof c = (Some sym_identifier,
     if in_set sym_identifier_character_set_2 800 c then ADVANCE 159 else
     END_STATE)"

definition ts_lex_160 :: lex_case where
  "ts_lex_160 eof c = (Some sym_comment,
     if c \<noteq> 0 \<and> c \<noteq> ch CHR 0x0A then ADVANCE 160 else
     END_STATE)"

definition ts_lex_161 :: lex_case where
  "ts_lex_161 eof c = (Some sym_line_continuation,
     END_STATE)"

lemmas ts_lex_state_defs =
  ts_lex_0_def ts_lex_1_def ts_lex_2_def ts_lex_3_def ts_lex_4_def ts_lex_5_def
  ts_lex_6_def ts_lex_7_def ts_lex_8_def ts_lex_9_def ts_lex_10_def ts_lex_11_def
  ts_lex_12_def ts_lex_13_def ts_lex_14_def ts_lex_15_def ts_lex_16_def ts_lex_17_def
  ts_lex_18_def ts_lex_19_def ts_lex_20_def ts_lex_21_def ts_lex_22_def ts_lex_23_def
  ts_lex_24_def ts_lex_25_def ts_lex_26_def ts_lex_27_def ts_lex_28_def ts_lex_29_def
  ts_lex_30_def ts_lex_31_def ts_lex_32_def ts_lex_33_def ts_lex_34_def ts_lex_35_def
  ts_lex_36_def ts_lex_37_def ts_lex_38_def ts_lex_39_def ts_lex_40_def ts_lex_41_def
  ts_lex_42_def ts_lex_43_def ts_lex_44_def ts_lex_45_def ts_lex_46_def ts_lex_47_def
  ts_lex_48_def ts_lex_49_def ts_lex_50_def ts_lex_51_def ts_lex_52_def ts_lex_53_def
  ts_lex_54_def ts_lex_55_def ts_lex_56_def ts_lex_57_def ts_lex_58_def ts_lex_59_def
  ts_lex_60_def ts_lex_61_def ts_lex_62_def ts_lex_63_def ts_lex_64_def ts_lex_65_def
  ts_lex_66_def ts_lex_67_def ts_lex_68_def ts_lex_69_def ts_lex_70_def ts_lex_71_def
  ts_lex_72_def ts_lex_73_def ts_lex_74_def ts_lex_75_def ts_lex_76_def ts_lex_77_def
  ts_lex_78_def ts_lex_79_def ts_lex_80_def ts_lex_81_def ts_lex_82_def ts_lex_83_def
  ts_lex_84_def ts_lex_85_def ts_lex_86_def ts_lex_87_def ts_lex_88_def ts_lex_89_def
  ts_lex_90_def ts_lex_91_def ts_lex_92_def ts_lex_93_def ts_lex_94_def ts_lex_95_def
  ts_lex_96_def ts_lex_97_def ts_lex_98_def ts_lex_99_def ts_lex_100_def ts_lex_101_def
  ts_lex_102_def ts_lex_103_def ts_lex_104_def ts_lex_105_def ts_lex_106_def ts_lex_107_def
  ts_lex_108_def ts_lex_109_def ts_lex_110_def ts_lex_111_def ts_lex_112_def ts_lex_113_def
  ts_lex_114_def ts_lex_115_def ts_lex_116_def ts_lex_117_def ts_lex_118_def ts_lex_119_def
  ts_lex_120_def ts_lex_121_def ts_lex_122_def ts_lex_123_def ts_lex_124_def ts_lex_125_def
  ts_lex_126_def ts_lex_127_def ts_lex_128_def ts_lex_129_def ts_lex_130_def ts_lex_131_def
  ts_lex_132_def ts_lex_133_def ts_lex_134_def ts_lex_135_def ts_lex_136_def ts_lex_137_def
  ts_lex_138_def ts_lex_139_def ts_lex_140_def ts_lex_141_def ts_lex_142_def ts_lex_143_def
  ts_lex_144_def ts_lex_145_def ts_lex_146_def ts_lex_147_def ts_lex_148_def ts_lex_149_def
  ts_lex_150_def ts_lex_151_def ts_lex_152_def ts_lex_153_def ts_lex_154_def ts_lex_155_def
  ts_lex_156_def ts_lex_157_def ts_lex_158_def ts_lex_159_def ts_lex_160_def ts_lex_161_def

text \<open>The \<open>switch\<close>: a state without a case returns \<open>false\<close>.\<close>

definition ts_lex_table :: "lex_case list" where
  "ts_lex_table =
    [ts_lex_0, ts_lex_1, ts_lex_2, ts_lex_3, ts_lex_4, ts_lex_5,
     ts_lex_6, ts_lex_7, ts_lex_8, ts_lex_9, ts_lex_10, ts_lex_11,
     ts_lex_12, ts_lex_13, ts_lex_14, ts_lex_15, ts_lex_16, ts_lex_17,
     ts_lex_18, ts_lex_19, ts_lex_20, ts_lex_21, ts_lex_22, ts_lex_23,
     ts_lex_24, ts_lex_25, ts_lex_26, ts_lex_27, ts_lex_28, ts_lex_29,
     ts_lex_30, ts_lex_31, ts_lex_32, ts_lex_33, ts_lex_34, ts_lex_35,
     ts_lex_36, ts_lex_37, ts_lex_38, ts_lex_39, ts_lex_40, ts_lex_41,
     ts_lex_42, ts_lex_43, ts_lex_44, ts_lex_45, ts_lex_46, ts_lex_47,
     ts_lex_48, ts_lex_49, ts_lex_50, ts_lex_51, ts_lex_52, ts_lex_53,
     ts_lex_54, ts_lex_55, ts_lex_56, ts_lex_57, ts_lex_58, ts_lex_59,
     ts_lex_60, ts_lex_61, ts_lex_62, ts_lex_63, ts_lex_64, ts_lex_65,
     ts_lex_66, ts_lex_67, ts_lex_68, ts_lex_69, ts_lex_70, ts_lex_71,
     ts_lex_72, ts_lex_73, ts_lex_74, ts_lex_75, ts_lex_76, ts_lex_77,
     ts_lex_78, ts_lex_79, ts_lex_80, ts_lex_81, ts_lex_82, ts_lex_83,
     ts_lex_84, ts_lex_85, ts_lex_86, ts_lex_87, ts_lex_88, ts_lex_89,
     ts_lex_90, ts_lex_91, ts_lex_92, ts_lex_93, ts_lex_94, ts_lex_95,
     ts_lex_96, ts_lex_97, ts_lex_98, ts_lex_99, ts_lex_100, ts_lex_101,
     ts_lex_102, ts_lex_103, ts_lex_104, ts_lex_105, ts_lex_106, ts_lex_107,
     ts_lex_108, ts_lex_109, ts_lex_110, ts_lex_111, ts_lex_112, ts_lex_113,
     ts_lex_114, ts_lex_115, ts_lex_116, ts_lex_117, ts_lex_118, ts_lex_119,
     ts_lex_120, ts_lex_121, ts_lex_122, ts_lex_123, ts_lex_124, ts_lex_125,
     ts_lex_126, ts_lex_127, ts_lex_128, ts_lex_129, ts_lex_130, ts_lex_131,
     ts_lex_132, ts_lex_133, ts_lex_134, ts_lex_135, ts_lex_136, ts_lex_137,
     ts_lex_138, ts_lex_139, ts_lex_140, ts_lex_141, ts_lex_142, ts_lex_143,
     ts_lex_144, ts_lex_145, ts_lex_146, ts_lex_147, ts_lex_148, ts_lex_149,
     ts_lex_150, ts_lex_151, ts_lex_152, ts_lex_153, ts_lex_154, ts_lex_155,
     ts_lex_156, ts_lex_157, ts_lex_158, ts_lex_159, ts_lex_160, ts_lex_161]"

definition ts_lex_switch :: "nat \<Rightarrow> lex_case option" where
  "ts_lex_switch state =
     (if state < length ts_lex_table then Some (ts_lex_table ! state) else None)"

definition ts_lex :: "'l lexer_ops \<Rightarrow> 'l \<Rightarrow> nat \<Rightarrow> (bool \<times> 'l) option" where
  "ts_lex L l state = lex_start L ts_lex_switch state l"

end
