(* ===== verification/Mojo_Lex_Keywords.thy ===== *)
theory Mojo_Lex_Keywords
  imports Mojo_Lex_Tables
begin

text \<open>
  The generated function \<open>ts_lex_keywords\<close> of \<^verbatim>\<open>grammars/tree-sitter-mojo/src/parser.c\<close>, one
  definition for each \<open>case\<close> of its \<open>switch\<close>.
\<close>

definition ts_lex_keywords_0 :: lex_case where
  "ts_lex_keywords_0 eof c = (None,
     if c = ch CHR 0x0D then SKIP 0 else
     if c = ch CHR ''F'' then ADVANCE 1 else
     if c = ch CHR ''N'' then ADVANCE 2 else
     if c = ch CHR ''T'' then ADVANCE 3 else
     if c = ch CHR ''_'' then ADVANCE 4 else
     if c = ch CHR ''a'' then ADVANCE 5 else
     if c = ch CHR ''b'' then ADVANCE 6 else
     if c = ch CHR ''c'' then ADVANCE 7 else
     if c = ch CHR ''d'' then ADVANCE 8 else
     if c = ch CHR ''e'' then ADVANCE 9 else
     if c = ch CHR ''f'' then ADVANCE 10 else
     if c = ch CHR ''g'' then ADVANCE 11 else
     if c = ch CHR ''i'' then ADVANCE 12 else
     if c = ch CHR ''l'' then ADVANCE 13 else
     if c = ch CHR ''m'' then ADVANCE 14 else
     if c = ch CHR ''n'' then ADVANCE 15 else
     if c = ch CHR ''o'' then ADVANCE 16 else
     if c = ch CHR ''p'' then ADVANCE 17 else
     if c = ch CHR ''r'' then ADVANCE 18 else
     if c = ch CHR ''s'' then ADVANCE 19 else
     if c = ch CHR ''t'' then ADVANCE 20 else
     if c = ch CHR ''u'' then ADVANCE 21 else
     if c = ch CHR ''v'' then ADVANCE 22 else
     if c = ch CHR ''w'' then ADVANCE 23 else
     if c = ch CHR ''y'' then ADVANCE 24 else
     if (ch CHR 0x09 \<le> c \<and> c \<le> ch CHR 0x0C) \<or> c = ch CHR '' '' \<or> c = 0x200B
          \<or> c = 0x2060 \<or> c = 0xFEFF then SKIP 0 else
     END_STATE)"

definition ts_lex_keywords_1 :: lex_case where
  "ts_lex_keywords_1 eof c = (None,
     if c = ch CHR ''a'' then ADVANCE 25 else
     END_STATE)"

definition ts_lex_keywords_2 :: lex_case where
  "ts_lex_keywords_2 eof c = (None,
     if c = ch CHR ''o'' then ADVANCE 26 else
     END_STATE)"

definition ts_lex_keywords_3 :: lex_case where
  "ts_lex_keywords_3 eof c = (None,
     if c = ch CHR ''r'' then ADVANCE 27 else
     END_STATE)"

definition ts_lex_keywords_4 :: lex_case where
  "ts_lex_keywords_4 eof c = (Some anon_sym__tok,
     if c = ch CHR ''_'' then ADVANCE 28 else
     END_STATE)"

definition ts_lex_keywords_5 :: lex_case where
  "ts_lex_keywords_5 eof c = (None,
     if c = ch CHR ''b'' then ADVANCE 29 else
     if c = ch CHR ''n'' then ADVANCE 30 else
     if c = ch CHR ''s'' then ADVANCE 31 else
     if c = ch CHR ''w'' then ADVANCE 32 else
     END_STATE)"

definition ts_lex_keywords_6 :: lex_case where
  "ts_lex_keywords_6 eof c = (None,
     if c = ch CHR ''o'' then ADVANCE 33 else
     if c = ch CHR ''r'' then ADVANCE 34 else
     END_STATE)"

definition ts_lex_keywords_7 :: lex_case where
  "ts_lex_keywords_7 eof c = (None,
     if c = ch CHR ''a'' then ADVANCE 35 else
     if c = ch CHR ''l'' then ADVANCE 36 else
     if c = ch CHR ''o'' then ADVANCE 37 else
     END_STATE)"

definition ts_lex_keywords_8 :: lex_case where
  "ts_lex_keywords_8 eof c = (None,
     if c = ch CHR ''e'' then ADVANCE 38 else
     END_STATE)"

definition ts_lex_keywords_9 :: lex_case where
  "ts_lex_keywords_9 eof c = (None,
     if c = ch CHR ''l'' then ADVANCE 39 else
     if c = ch CHR ''s'' then ADVANCE 40 else
     if c = ch CHR ''x'' then ADVANCE 41 else
     END_STATE)"

definition ts_lex_keywords_10 :: lex_case where
  "ts_lex_keywords_10 eof c = (None,
     if c = ch CHR ''i'' then ADVANCE 42 else
     if c = ch CHR ''n'' then ADVANCE 43 else
     if c = ch CHR ''o'' then ADVANCE 44 else
     if c = ch CHR ''r'' then ADVANCE 45 else
     END_STATE)"

definition ts_lex_keywords_11 :: lex_case where
  "ts_lex_keywords_11 eof c = (None,
     if c = ch CHR ''l'' then ADVANCE 46 else
     END_STATE)"

definition ts_lex_keywords_12 :: lex_case where
  "ts_lex_keywords_12 eof c = (None,
     if c = ch CHR ''f'' then ADVANCE 47 else
     if c = ch CHR ''m'' then ADVANCE 48 else
     if c = ch CHR ''n'' then ADVANCE 49 else
     if c = ch CHR ''s'' then ADVANCE 50 else
     END_STATE)"

definition ts_lex_keywords_13 :: lex_case where
  "ts_lex_keywords_13 eof c = (None,
     if c = ch CHR ''a'' then ADVANCE 51 else
     END_STATE)"

definition ts_lex_keywords_14 :: lex_case where
  "ts_lex_keywords_14 eof c = (None,
     if c = ch CHR ''a'' then ADVANCE 52 else
     if c = ch CHR ''u'' then ADVANCE 53 else
     END_STATE)"

definition ts_lex_keywords_15 :: lex_case where
  "ts_lex_keywords_15 eof c = (None,
     if c = ch CHR ''o'' then ADVANCE 54 else
     END_STATE)"

definition ts_lex_keywords_16 :: lex_case where
  "ts_lex_keywords_16 eof c = (None,
     if c = ch CHR ''r'' then ADVANCE 55 else
     if c = ch CHR ''u'' then ADVANCE 56 else
     if c = ch CHR ''w'' then ADVANCE 57 else
     END_STATE)"

definition ts_lex_keywords_17 :: lex_case where
  "ts_lex_keywords_17 eof c = (None,
     if c = ch CHR ''a'' then ADVANCE 58 else
     if c = ch CHR ''r'' then ADVANCE 59 else
     END_STATE)"

definition ts_lex_keywords_18 :: lex_case where
  "ts_lex_keywords_18 eof c = (None,
     if c = ch CHR ''a'' then ADVANCE 60 else
     if c = ch CHR ''e'' then ADVANCE 61 else
     END_STATE)"

definition ts_lex_keywords_19 :: lex_case where
  "ts_lex_keywords_19 eof c = (None,
     if c = ch CHR ''e'' then ADVANCE 62 else
     if c = ch CHR ''t'' then ADVANCE 63 else
     END_STATE)"

definition ts_lex_keywords_20 :: lex_case where
  "ts_lex_keywords_20 eof c = (None,
     if c = ch CHR ''h'' then ADVANCE 64 else
     if c = ch CHR ''r'' then ADVANCE 65 else
     if c = ch CHR ''y'' then ADVANCE 66 else
     END_STATE)"

definition ts_lex_keywords_21 :: lex_case where
  "ts_lex_keywords_21 eof c = (None,
     if c = ch CHR ''n'' then ADVANCE 67 else
     END_STATE)"

definition ts_lex_keywords_22 :: lex_case where
  "ts_lex_keywords_22 eof c = (None,
     if c = ch CHR ''a'' then ADVANCE 68 else
     END_STATE)"

definition ts_lex_keywords_23 :: lex_case where
  "ts_lex_keywords_23 eof c = (None,
     if c = ch CHR ''h'' then ADVANCE 69 else
     if c = ch CHR ''i'' then ADVANCE 70 else
     END_STATE)"

definition ts_lex_keywords_24 :: lex_case where
  "ts_lex_keywords_24 eof c = (None,
     if c = ch CHR ''i'' then ADVANCE 71 else
     END_STATE)"

definition ts_lex_keywords_25 :: lex_case where
  "ts_lex_keywords_25 eof c = (None,
     if c = ch CHR ''l'' then ADVANCE 72 else
     END_STATE)"

definition ts_lex_keywords_26 :: lex_case where
  "ts_lex_keywords_26 eof c = (None,
     if c = ch CHR ''n'' then ADVANCE 73 else
     END_STATE)"

definition ts_lex_keywords_27 :: lex_case where
  "ts_lex_keywords_27 eof c = (None,
     if c = ch CHR ''u'' then ADVANCE 74 else
     END_STATE)"

definition ts_lex_keywords_28 :: lex_case where
  "ts_lex_keywords_28 eof c = (None,
     if c = ch CHR ''c'' then ADVANCE 75 else
     if c = ch CHR ''e'' then ADVANCE 76 else
     if c = ch CHR ''f'' then ADVANCE 77 else
     if c = ch CHR ''m'' then ADVANCE 78 else
     END_STATE)"

definition ts_lex_keywords_29 :: lex_case where
  "ts_lex_keywords_29 eof c = (None,
     if c = ch CHR ''i'' then ADVANCE 79 else
     END_STATE)"

definition ts_lex_keywords_30 :: lex_case where
  "ts_lex_keywords_30 eof c = (None,
     if c = ch CHR ''d'' then ADVANCE 80 else
     END_STATE)"

definition ts_lex_keywords_31 :: lex_case where
  "ts_lex_keywords_31 eof c = (Some anon_sym_as,
     if c = ch CHR ''s'' then ADVANCE 81 else
     if c = ch CHR ''y'' then ADVANCE 82 else
     END_STATE)"

definition ts_lex_keywords_32 :: lex_case where
  "ts_lex_keywords_32 eof c = (None,
     if c = ch CHR ''a'' then ADVANCE 83 else
     END_STATE)"

definition ts_lex_keywords_33 :: lex_case where
  "ts_lex_keywords_33 eof c = (None,
     if c = ch CHR ''r'' then ADVANCE 84 else
     END_STATE)"

definition ts_lex_keywords_34 :: lex_case where
  "ts_lex_keywords_34 eof c = (None,
     if c = ch CHR ''e'' then ADVANCE 85 else
     END_STATE)"

definition ts_lex_keywords_35 :: lex_case where
  "ts_lex_keywords_35 eof c = (None,
     if c = ch CHR ''p'' then ADVANCE 86 else
     if c = ch CHR ''s'' then ADVANCE 87 else
     END_STATE)"

definition ts_lex_keywords_36 :: lex_case where
  "ts_lex_keywords_36 eof c = (None,
     if c = ch CHR ''a'' then ADVANCE 88 else
     END_STATE)"

definition ts_lex_keywords_37 :: lex_case where
  "ts_lex_keywords_37 eof c = (None,
     if c = ch CHR ''m'' then ADVANCE 89 else
     if c = ch CHR ''n'' then ADVANCE 90 else
     END_STATE)"

definition ts_lex_keywords_38 :: lex_case where
  "ts_lex_keywords_38 eof c = (None,
     if c = ch CHR ''f'' then ADVANCE 91 else
     if c = ch CHR ''i'' then ADVANCE 92 else
     if c = ch CHR ''l'' then ADVANCE 93 else
     END_STATE)"

definition ts_lex_keywords_39 :: lex_case where
  "ts_lex_keywords_39 eof c = (None,
     if c = ch CHR ''i'' then ADVANCE 94 else
     if c = ch CHR ''s'' then ADVANCE 95 else
     END_STATE)"

definition ts_lex_keywords_40 :: lex_case where
  "ts_lex_keywords_40 eof c = (None,
     if c = ch CHR ''c'' then ADVANCE 96 else
     END_STATE)"

definition ts_lex_keywords_41 :: lex_case where
  "ts_lex_keywords_41 eof c = (None,
     if c = ch CHR ''e'' then ADVANCE 97 else
     END_STATE)"

definition ts_lex_keywords_42 :: lex_case where
  "ts_lex_keywords_42 eof c = (None,
     if c = ch CHR ''n'' then ADVANCE 98 else
     END_STATE)"

definition ts_lex_keywords_43 :: lex_case where
  "ts_lex_keywords_43 eof c = (Some anon_sym_fn,
     END_STATE)"

definition ts_lex_keywords_44 :: lex_case where
  "ts_lex_keywords_44 eof c = (None,
     if c = ch CHR ''r'' then ADVANCE 99 else
     END_STATE)"

definition ts_lex_keywords_45 :: lex_case where
  "ts_lex_keywords_45 eof c = (None,
     if c = ch CHR ''o'' then ADVANCE 100 else
     END_STATE)"

definition ts_lex_keywords_46 :: lex_case where
  "ts_lex_keywords_46 eof c = (None,
     if c = ch CHR ''o'' then ADVANCE 101 else
     END_STATE)"

definition ts_lex_keywords_47 :: lex_case where
  "ts_lex_keywords_47 eof c = (Some anon_sym_if,
     END_STATE)"

definition ts_lex_keywords_48 :: lex_case where
  "ts_lex_keywords_48 eof c = (None,
     if c = ch CHR ''p'' then ADVANCE 102 else
     END_STATE)"

definition ts_lex_keywords_49 :: lex_case where
  "ts_lex_keywords_49 eof c = (Some anon_sym_in,
     if c = ch CHR ''f'' then ADVANCE 103 else
     if c = ch CHR ''o'' then ADVANCE 104 else
     END_STATE)"

definition ts_lex_keywords_50 :: lex_case where
  "ts_lex_keywords_50 eof c = (Some anon_sym_is,
     END_STATE)"

definition ts_lex_keywords_51 :: lex_case where
  "ts_lex_keywords_51 eof c = (None,
     if c = ch CHR ''m'' then ADVANCE 105 else
     END_STATE)"

definition ts_lex_keywords_52 :: lex_case where
  "ts_lex_keywords_52 eof c = (None,
     if c = ch CHR ''t'' then ADVANCE 106 else
     END_STATE)"

definition ts_lex_keywords_53 :: lex_case where
  "ts_lex_keywords_53 eof c = (None,
     if c = ch CHR ''t'' then ADVANCE 107 else
     END_STATE)"

definition ts_lex_keywords_54 :: lex_case where
  "ts_lex_keywords_54 eof c = (None,
     if c = ch CHR ''n'' then ADVANCE 108 else
     if c = ch CHR ''t'' then ADVANCE 109 else
     END_STATE)"

definition ts_lex_keywords_55 :: lex_case where
  "ts_lex_keywords_55 eof c = (Some anon_sym_or,
     END_STATE)"

definition ts_lex_keywords_56 :: lex_case where
  "ts_lex_keywords_56 eof c = (None,
     if c = ch CHR ''t'' then ADVANCE 110 else
     END_STATE)"

definition ts_lex_keywords_57 :: lex_case where
  "ts_lex_keywords_57 eof c = (None,
     if c = ch CHR ''n'' then ADVANCE 111 else
     END_STATE)"

definition ts_lex_keywords_58 :: lex_case where
  "ts_lex_keywords_58 eof c = (None,
     if c = ch CHR ''s'' then ADVANCE 112 else
     END_STATE)"

definition ts_lex_keywords_59 :: lex_case where
  "ts_lex_keywords_59 eof c = (None,
     if c = ch CHR ''i'' then ADVANCE 113 else
     END_STATE)"

definition ts_lex_keywords_60 :: lex_case where
  "ts_lex_keywords_60 eof c = (None,
     if c = ch CHR ''i'' then ADVANCE 114 else
     END_STATE)"

definition ts_lex_keywords_61 :: lex_case where
  "ts_lex_keywords_61 eof c = (None,
     if c = ch CHR ''a'' then ADVANCE 115 else
     if c = ch CHR ''f'' then ADVANCE 116 else
     if c = ch CHR ''t'' then ADVANCE 117 else
     END_STATE)"

definition ts_lex_keywords_62 :: lex_case where
  "ts_lex_keywords_62 eof c = (None,
     if c = ch CHR ''l'' then ADVANCE 118 else
     END_STATE)"

definition ts_lex_keywords_63 :: lex_case where
  "ts_lex_keywords_63 eof c = (None,
     if c = ch CHR ''r'' then ADVANCE 119 else
     END_STATE)"

definition ts_lex_keywords_64 :: lex_case where
  "ts_lex_keywords_64 eof c = (None,
     if c = ch CHR ''i'' then ADVANCE 120 else
     END_STATE)"

definition ts_lex_keywords_65 :: lex_case where
  "ts_lex_keywords_65 eof c = (None,
     if c = ch CHR ''a'' then ADVANCE 121 else
     if c = ch CHR ''y'' then ADVANCE 122 else
     END_STATE)"

definition ts_lex_keywords_66 :: lex_case where
  "ts_lex_keywords_66 eof c = (None,
     if c = ch CHR ''p'' then ADVANCE 123 else
     END_STATE)"

definition ts_lex_keywords_67 :: lex_case where
  "ts_lex_keywords_67 eof c = (None,
     if c = ch CHR ''i'' then ADVANCE 124 else
     END_STATE)"

definition ts_lex_keywords_68 :: lex_case where
  "ts_lex_keywords_68 eof c = (None,
     if c = ch CHR ''r'' then ADVANCE 125 else
     END_STATE)"

definition ts_lex_keywords_69 :: lex_case where
  "ts_lex_keywords_69 eof c = (None,
     if c = ch CHR ''e'' then ADVANCE 126 else
     if c = ch CHR ''i'' then ADVANCE 127 else
     END_STATE)"

definition ts_lex_keywords_70 :: lex_case where
  "ts_lex_keywords_70 eof c = (None,
     if c = ch CHR ''t'' then ADVANCE 128 else
     END_STATE)"

definition ts_lex_keywords_71 :: lex_case where
  "ts_lex_keywords_71 eof c = (None,
     if c = ch CHR ''e'' then ADVANCE 129 else
     END_STATE)"

definition ts_lex_keywords_72 :: lex_case where
  "ts_lex_keywords_72 eof c = (None,
     if c = ch CHR ''s'' then ADVANCE 130 else
     END_STATE)"

definition ts_lex_keywords_73 :: lex_case where
  "ts_lex_keywords_73 eof c = (None,
     if c = ch CHR ''e'' then ADVANCE 131 else
     END_STATE)"

definition ts_lex_keywords_74 :: lex_case where
  "ts_lex_keywords_74 eof c = (None,
     if c = ch CHR ''e'' then ADVANCE 132 else
     END_STATE)"

definition ts_lex_keywords_75 :: lex_case where
  "ts_lex_keywords_75 eof c = (None,
     if c = ch CHR ''o'' then ADVANCE 133 else
     END_STATE)"

definition ts_lex_keywords_76 :: lex_case where
  "ts_lex_keywords_76 eof c = (None,
     if c = ch CHR ''x'' then ADVANCE 134 else
     END_STATE)"

definition ts_lex_keywords_77 :: lex_case where
  "ts_lex_keywords_77 eof c = (None,
     if c = ch CHR ''u'' then ADVANCE 135 else
     END_STATE)"

definition ts_lex_keywords_78 :: lex_case where
  "ts_lex_keywords_78 eof c = (None,
     if c = ch CHR ''l'' then ADVANCE 136 else
     END_STATE)"

definition ts_lex_keywords_79 :: lex_case where
  "ts_lex_keywords_79 eof c = (Some anon_sym_abi,
     END_STATE)"

definition ts_lex_keywords_80 :: lex_case where
  "ts_lex_keywords_80 eof c = (Some anon_sym_and,
     END_STATE)"

definition ts_lex_keywords_81 :: lex_case where
  "ts_lex_keywords_81 eof c = (None,
     if c = ch CHR ''e'' then ADVANCE 137 else
     END_STATE)"

definition ts_lex_keywords_82 :: lex_case where
  "ts_lex_keywords_82 eof c = (None,
     if c = ch CHR ''n'' then ADVANCE 138 else
     END_STATE)"

definition ts_lex_keywords_83 :: lex_case where
  "ts_lex_keywords_83 eof c = (None,
     if c = ch CHR ''i'' then ADVANCE 139 else
     END_STATE)"

definition ts_lex_keywords_84 :: lex_case where
  "ts_lex_keywords_84 eof c = (None,
     if c = ch CHR ''r'' then ADVANCE 140 else
     END_STATE)"

definition ts_lex_keywords_85 :: lex_case where
  "ts_lex_keywords_85 eof c = (None,
     if c = ch CHR ''a'' then ADVANCE 141 else
     END_STATE)"

definition ts_lex_keywords_86 :: lex_case where
  "ts_lex_keywords_86 eof c = (None,
     if c = ch CHR ''t'' then ADVANCE 142 else
     END_STATE)"

definition ts_lex_keywords_87 :: lex_case where
  "ts_lex_keywords_87 eof c = (None,
     if c = ch CHR ''e'' then ADVANCE 143 else
     END_STATE)"

definition ts_lex_keywords_88 :: lex_case where
  "ts_lex_keywords_88 eof c = (None,
     if c = ch CHR ''s'' then ADVANCE 144 else
     END_STATE)"

definition ts_lex_keywords_89 :: lex_case where
  "ts_lex_keywords_89 eof c = (None,
     if c = ch CHR ''p'' then ADVANCE 145 else
     END_STATE)"

definition ts_lex_keywords_90 :: lex_case where
  "ts_lex_keywords_90 eof c = (None,
     if c = ch CHR ''t'' then ADVANCE 146 else
     END_STATE)"

definition ts_lex_keywords_91 :: lex_case where
  "ts_lex_keywords_91 eof c = (Some anon_sym_def,
     END_STATE)"

definition ts_lex_keywords_92 :: lex_case where
  "ts_lex_keywords_92 eof c = (None,
     if c = ch CHR ''n'' then ADVANCE 147 else
     END_STATE)"

definition ts_lex_keywords_93 :: lex_case where
  "ts_lex_keywords_93 eof c = (Some anon_sym_del,
     END_STATE)"

definition ts_lex_keywords_94 :: lex_case where
  "ts_lex_keywords_94 eof c = (None,
     if c = ch CHR ''f'' then ADVANCE 148 else
     END_STATE)"

definition ts_lex_keywords_95 :: lex_case where
  "ts_lex_keywords_95 eof c = (None,
     if c = ch CHR ''e'' then ADVANCE 149 else
     END_STATE)"

definition ts_lex_keywords_96 :: lex_case where
  "ts_lex_keywords_96 eof c = (None,
     if c = ch CHR ''a'' then ADVANCE 150 else
     END_STATE)"

definition ts_lex_keywords_97 :: lex_case where
  "ts_lex_keywords_97 eof c = (None,
     if c = ch CHR ''c'' then ADVANCE 151 else
     END_STATE)"

definition ts_lex_keywords_98 :: lex_case where
  "ts_lex_keywords_98 eof c = (None,
     if c = ch CHR ''a'' then ADVANCE 152 else
     END_STATE)"

definition ts_lex_keywords_99 :: lex_case where
  "ts_lex_keywords_99 eof c = (Some anon_sym_for,
     END_STATE)"

definition ts_lex_keywords_100 :: lex_case where
  "ts_lex_keywords_100 eof c = (None,
     if c = ch CHR ''m'' then ADVANCE 153 else
     END_STATE)"

definition ts_lex_keywords_101 :: lex_case where
  "ts_lex_keywords_101 eof c = (None,
     if c = ch CHR ''b'' then ADVANCE 154 else
     END_STATE)"

definition ts_lex_keywords_102 :: lex_case where
  "ts_lex_keywords_102 eof c = (None,
     if c = ch CHR ''o'' then ADVANCE 155 else
     END_STATE)"

definition ts_lex_keywords_103 :: lex_case where
  "ts_lex_keywords_103 eof c = (None,
     if c = ch CHR ''e'' then ADVANCE 156 else
     END_STATE)"

definition ts_lex_keywords_104 :: lex_case where
  "ts_lex_keywords_104 eof c = (None,
     if c = ch CHR ''u'' then ADVANCE 157 else
     END_STATE)"

definition ts_lex_keywords_105 :: lex_case where
  "ts_lex_keywords_105 eof c = (None,
     if c = ch CHR ''b'' then ADVANCE 158 else
     END_STATE)"

definition ts_lex_keywords_106 :: lex_case where
  "ts_lex_keywords_106 eof c = (None,
     if c = ch CHR ''c'' then ADVANCE 159 else
     END_STATE)"

definition ts_lex_keywords_107 :: lex_case where
  "ts_lex_keywords_107 eof c = (Some anon_sym_mut,
     END_STATE)"

definition ts_lex_keywords_108 :: lex_case where
  "ts_lex_keywords_108 eof c = (None,
     if c = ch CHR ''l'' then ADVANCE 160 else
     END_STATE)"

definition ts_lex_keywords_109 :: lex_case where
  "ts_lex_keywords_109 eof c = (Some anon_sym_not,
     END_STATE)"

definition ts_lex_keywords_110 :: lex_case where
  "ts_lex_keywords_110 eof c = (Some anon_sym_out,
     END_STATE)"

definition ts_lex_keywords_111 :: lex_case where
  "ts_lex_keywords_111 eof c = (None,
     if c = ch CHR ''e'' then ADVANCE 161 else
     END_STATE)"

definition ts_lex_keywords_112 :: lex_case where
  "ts_lex_keywords_112 eof c = (None,
     if c = ch CHR ''s'' then ADVANCE 162 else
     END_STATE)"

definition ts_lex_keywords_113 :: lex_case where
  "ts_lex_keywords_113 eof c = (None,
     if c = ch CHR ''n'' then ADVANCE 163 else
     END_STATE)"

definition ts_lex_keywords_114 :: lex_case where
  "ts_lex_keywords_114 eof c = (None,
     if c = ch CHR ''s'' then ADVANCE 164 else
     END_STATE)"

definition ts_lex_keywords_115 :: lex_case where
  "ts_lex_keywords_115 eof c = (None,
     if c = ch CHR ''d'' then ADVANCE 165 else
     END_STATE)"

definition ts_lex_keywords_116 :: lex_case where
  "ts_lex_keywords_116 eof c = (Some anon_sym_ref,
     END_STATE)"

definition ts_lex_keywords_117 :: lex_case where
  "ts_lex_keywords_117 eof c = (None,
     if c = ch CHR ''u'' then ADVANCE 166 else
     END_STATE)"

definition ts_lex_keywords_118 :: lex_case where
  "ts_lex_keywords_118 eof c = (None,
     if c = ch CHR ''f'' then ADVANCE 167 else
     END_STATE)"

definition ts_lex_keywords_119 :: lex_case where
  "ts_lex_keywords_119 eof c = (None,
     if c = ch CHR ''u'' then ADVANCE 168 else
     END_STATE)"

definition ts_lex_keywords_120 :: lex_case where
  "ts_lex_keywords_120 eof c = (None,
     if c = ch CHR ''n'' then ADVANCE 169 else
     END_STATE)"

definition ts_lex_keywords_121 :: lex_case where
  "ts_lex_keywords_121 eof c = (None,
     if c = ch CHR ''i'' then ADVANCE 170 else
     END_STATE)"

definition ts_lex_keywords_122 :: lex_case where
  "ts_lex_keywords_122 eof c = (Some anon_sym_try,
     END_STATE)"

definition ts_lex_keywords_123 :: lex_case where
  "ts_lex_keywords_123 eof c = (None,
     if c = ch CHR ''e'' then ADVANCE 171 else
     END_STATE)"

definition ts_lex_keywords_124 :: lex_case where
  "ts_lex_keywords_124 eof c = (None,
     if c = ch CHR ''f'' then ADVANCE 172 else
     END_STATE)"

definition ts_lex_keywords_125 :: lex_case where
  "ts_lex_keywords_125 eof c = (Some anon_sym_var,
     END_STATE)"

definition ts_lex_keywords_126 :: lex_case where
  "ts_lex_keywords_126 eof c = (None,
     if c = ch CHR ''r'' then ADVANCE 173 else
     END_STATE)"

definition ts_lex_keywords_127 :: lex_case where
  "ts_lex_keywords_127 eof c = (None,
     if c = ch CHR ''l'' then ADVANCE 174 else
     END_STATE)"

definition ts_lex_keywords_128 :: lex_case where
  "ts_lex_keywords_128 eof c = (None,
     if c = ch CHR ''h'' then ADVANCE 175 else
     END_STATE)"

definition ts_lex_keywords_129 :: lex_case where
  "ts_lex_keywords_129 eof c = (None,
     if c = ch CHR ''l'' then ADVANCE 176 else
     END_STATE)"

definition ts_lex_keywords_130 :: lex_case where
  "ts_lex_keywords_130 eof c = (None,
     if c = ch CHR ''e'' then ADVANCE 177 else
     END_STATE)"

definition ts_lex_keywords_131 :: lex_case where
  "ts_lex_keywords_131 eof c = (Some sym_none,
     END_STATE)"

definition ts_lex_keywords_132 :: lex_case where
  "ts_lex_keywords_132 eof c = (Some sym_true,
     END_STATE)"

definition ts_lex_keywords_133 :: lex_case where
  "ts_lex_keywords_133 eof c = (None,
     if c = ch CHR ''m'' then ADVANCE 178 else
     END_STATE)"

definition ts_lex_keywords_134 :: lex_case where
  "ts_lex_keywords_134 eof c = (None,
     if c = ch CHR ''t'' then ADVANCE 179 else
     END_STATE)"

definition ts_lex_keywords_135 :: lex_case where
  "ts_lex_keywords_135 eof c = (None,
     if c = ch CHR ''t'' then ADVANCE 180 else
     END_STATE)"

definition ts_lex_keywords_136 :: lex_case where
  "ts_lex_keywords_136 eof c = (None,
     if c = ch CHR ''i'' then ADVANCE 181 else
     END_STATE)"

definition ts_lex_keywords_137 :: lex_case where
  "ts_lex_keywords_137 eof c = (None,
     if c = ch CHR ''r'' then ADVANCE 182 else
     END_STATE)"

definition ts_lex_keywords_138 :: lex_case where
  "ts_lex_keywords_138 eof c = (None,
     if c = ch CHR ''c'' then ADVANCE 183 else
     END_STATE)"

definition ts_lex_keywords_139 :: lex_case where
  "ts_lex_keywords_139 eof c = (None,
     if c = ch CHR ''t'' then ADVANCE 184 else
     END_STATE)"

definition ts_lex_keywords_140 :: lex_case where
  "ts_lex_keywords_140 eof c = (None,
     if c = ch CHR ''o'' then ADVANCE 185 else
     END_STATE)"

definition ts_lex_keywords_141 :: lex_case where
  "ts_lex_keywords_141 eof c = (None,
     if c = ch CHR ''k'' then ADVANCE 186 else
     END_STATE)"

definition ts_lex_keywords_142 :: lex_case where
  "ts_lex_keywords_142 eof c = (None,
     if c = ch CHR ''u'' then ADVANCE 187 else
     END_STATE)"

definition ts_lex_keywords_143 :: lex_case where
  "ts_lex_keywords_143 eof c = (Some anon_sym_case,
     END_STATE)"

definition ts_lex_keywords_144 :: lex_case where
  "ts_lex_keywords_144 eof c = (None,
     if c = ch CHR ''s'' then ADVANCE 188 else
     END_STATE)"

definition ts_lex_keywords_145 :: lex_case where
  "ts_lex_keywords_145 eof c = (None,
     if c = ch CHR ''t'' then ADVANCE 189 else
     END_STATE)"

definition ts_lex_keywords_146 :: lex_case where
  "ts_lex_keywords_146 eof c = (None,
     if c = ch CHR ''i'' then ADVANCE 190 else
     END_STATE)"

definition ts_lex_keywords_147 :: lex_case where
  "ts_lex_keywords_147 eof c = (None,
     if c = ch CHR ''i'' then ADVANCE 191 else
     END_STATE)"

definition ts_lex_keywords_148 :: lex_case where
  "ts_lex_keywords_148 eof c = (Some anon_sym_elif,
     END_STATE)"

definition ts_lex_keywords_149 :: lex_case where
  "ts_lex_keywords_149 eof c = (Some anon_sym_else,
     END_STATE)"

definition ts_lex_keywords_150 :: lex_case where
  "ts_lex_keywords_150 eof c = (None,
     if c = ch CHR ''p'' then ADVANCE 192 else
     END_STATE)"

definition ts_lex_keywords_151 :: lex_case where
  "ts_lex_keywords_151 eof c = (Some anon_sym_exec,
     END_STATE)"

definition ts_lex_keywords_152 :: lex_case where
  "ts_lex_keywords_152 eof c = (None,
     if c = ch CHR ''l'' then ADVANCE 193 else
     END_STATE)"

definition ts_lex_keywords_153 :: lex_case where
  "ts_lex_keywords_153 eof c = (Some anon_sym_from,
     END_STATE)"

definition ts_lex_keywords_154 :: lex_case where
  "ts_lex_keywords_154 eof c = (None,
     if c = ch CHR ''a'' then ADVANCE 194 else
     END_STATE)"

definition ts_lex_keywords_155 :: lex_case where
  "ts_lex_keywords_155 eof c = (None,
     if c = ch CHR ''r'' then ADVANCE 195 else
     END_STATE)"

definition ts_lex_keywords_156 :: lex_case where
  "ts_lex_keywords_156 eof c = (None,
     if c = ch CHR ''r'' then ADVANCE 196 else
     END_STATE)"

definition ts_lex_keywords_157 :: lex_case where
  "ts_lex_keywords_157 eof c = (None,
     if c = ch CHR ''t'' then ADVANCE 197 else
     END_STATE)"

definition ts_lex_keywords_158 :: lex_case where
  "ts_lex_keywords_158 eof c = (None,
     if c = ch CHR ''d'' then ADVANCE 198 else
     END_STATE)"

definition ts_lex_keywords_159 :: lex_case where
  "ts_lex_keywords_159 eof c = (None,
     if c = ch CHR ''h'' then ADVANCE 199 else
     END_STATE)"

definition ts_lex_keywords_160 :: lex_case where
  "ts_lex_keywords_160 eof c = (None,
     if c = ch CHR ''o'' then ADVANCE 200 else
     END_STATE)"

definition ts_lex_keywords_161 :: lex_case where
  "ts_lex_keywords_161 eof c = (None,
     if c = ch CHR ''d'' then ADVANCE 201 else
     END_STATE)"

definition ts_lex_keywords_162 :: lex_case where
  "ts_lex_keywords_162 eof c = (Some anon_sym_pass,
     END_STATE)"

definition ts_lex_keywords_163 :: lex_case where
  "ts_lex_keywords_163 eof c = (None,
     if c = ch CHR ''t'' then ADVANCE 202 else
     END_STATE)"

definition ts_lex_keywords_164 :: lex_case where
  "ts_lex_keywords_164 eof c = (None,
     if c = ch CHR ''e'' then ADVANCE 203 else
     END_STATE)"

definition ts_lex_keywords_165 :: lex_case where
  "ts_lex_keywords_165 eof c = (Some anon_sym_read,
     END_STATE)"

definition ts_lex_keywords_166 :: lex_case where
  "ts_lex_keywords_166 eof c = (None,
     if c = ch CHR ''r'' then ADVANCE 204 else
     END_STATE)"

definition ts_lex_keywords_167 :: lex_case where
  "ts_lex_keywords_167 eof c = (Some anon_sym_self,
     END_STATE)"

definition ts_lex_keywords_168 :: lex_case where
  "ts_lex_keywords_168 eof c = (None,
     if c = ch CHR ''c'' then ADVANCE 205 else
     END_STATE)"

definition ts_lex_keywords_169 :: lex_case where
  "ts_lex_keywords_169 eof c = (Some anon_sym_thin,
     END_STATE)"

definition ts_lex_keywords_170 :: lex_case where
  "ts_lex_keywords_170 eof c = (None,
     if c = ch CHR ''t'' then ADVANCE 206 else
     END_STATE)"

definition ts_lex_keywords_171 :: lex_case where
  "ts_lex_keywords_171 eof c = (Some anon_sym_type,
     END_STATE)"

definition ts_lex_keywords_172 :: lex_case where
  "ts_lex_keywords_172 eof c = (None,
     if c = ch CHR ''i'' then ADVANCE 207 else
     END_STATE)"

definition ts_lex_keywords_173 :: lex_case where
  "ts_lex_keywords_173 eof c = (None,
     if c = ch CHR ''e'' then ADVANCE 208 else
     END_STATE)"

definition ts_lex_keywords_174 :: lex_case where
  "ts_lex_keywords_174 eof c = (None,
     if c = ch CHR ''e'' then ADVANCE 209 else
     END_STATE)"

definition ts_lex_keywords_175 :: lex_case where
  "ts_lex_keywords_175 eof c = (Some anon_sym_with,
     END_STATE)"

definition ts_lex_keywords_176 :: lex_case where
  "ts_lex_keywords_176 eof c = (None,
     if c = ch CHR ''d'' then ADVANCE 210 else
     END_STATE)"

definition ts_lex_keywords_177 :: lex_case where
  "ts_lex_keywords_177 eof c = (Some sym_false,
     END_STATE)"

definition ts_lex_keywords_178 :: lex_case where
  "ts_lex_keywords_178 eof c = (None,
     if c = ch CHR ''p'' then ADVANCE 211 else
     END_STATE)"

definition ts_lex_keywords_179 :: lex_case where
  "ts_lex_keywords_179 eof c = (None,
     if c = ch CHR ''e'' then ADVANCE 212 else
     END_STATE)"

definition ts_lex_keywords_180 :: lex_case where
  "ts_lex_keywords_180 eof c = (None,
     if c = ch CHR ''u'' then ADVANCE 213 else
     END_STATE)"

definition ts_lex_keywords_181 :: lex_case where
  "ts_lex_keywords_181 eof c = (None,
     if c = ch CHR ''r'' then ADVANCE 214 else
     END_STATE)"

definition ts_lex_keywords_182 :: lex_case where
  "ts_lex_keywords_182 eof c = (None,
     if c = ch CHR ''t'' then ADVANCE 215 else
     END_STATE)"

definition ts_lex_keywords_183 :: lex_case where
  "ts_lex_keywords_183 eof c = (Some anon_sym_async,
     END_STATE)"

definition ts_lex_keywords_184 :: lex_case where
  "ts_lex_keywords_184 eof c = (Some anon_sym_await,
     END_STATE)"

definition ts_lex_keywords_185 :: lex_case where
  "ts_lex_keywords_185 eof c = (None,
     if c = ch CHR ''w'' then ADVANCE 216 else
     END_STATE)"

definition ts_lex_keywords_186 :: lex_case where
  "ts_lex_keywords_186 eof c = (Some anon_sym_break,
     END_STATE)"

definition ts_lex_keywords_187 :: lex_case where
  "ts_lex_keywords_187 eof c = (None,
     if c = ch CHR ''r'' then ADVANCE 217 else
     END_STATE)"

definition ts_lex_keywords_188 :: lex_case where
  "ts_lex_keywords_188 eof c = (Some anon_sym_class,
     END_STATE)"

definition ts_lex_keywords_189 :: lex_case where
  "ts_lex_keywords_189 eof c = (None,
     if c = ch CHR ''i'' then ADVANCE 218 else
     END_STATE)"

definition ts_lex_keywords_190 :: lex_case where
  "ts_lex_keywords_190 eof c = (None,
     if c = ch CHR ''n'' then ADVANCE 219 else
     END_STATE)"

definition ts_lex_keywords_191 :: lex_case where
  "ts_lex_keywords_191 eof c = (None,
     if c = ch CHR ''t'' then ADVANCE 220 else
     END_STATE)"

definition ts_lex_keywords_192 :: lex_case where
  "ts_lex_keywords_192 eof c = (None,
     if c = ch CHR ''i'' then ADVANCE 221 else
     END_STATE)"

definition ts_lex_keywords_193 :: lex_case where
  "ts_lex_keywords_193 eof c = (None,
     if c = ch CHR ''l'' then ADVANCE 222 else
     END_STATE)"

definition ts_lex_keywords_194 :: lex_case where
  "ts_lex_keywords_194 eof c = (None,
     if c = ch CHR ''l'' then ADVANCE 223 else
     END_STATE)"

definition ts_lex_keywords_195 :: lex_case where
  "ts_lex_keywords_195 eof c = (None,
     if c = ch CHR ''t'' then ADVANCE 224 else
     END_STATE)"

definition ts_lex_keywords_196 :: lex_case where
  "ts_lex_keywords_196 eof c = (None,
     if c = ch CHR ''r'' then ADVANCE 225 else
     END_STATE)"

definition ts_lex_keywords_197 :: lex_case where
  "ts_lex_keywords_197 eof c = (Some anon_sym_inout,
     END_STATE)"

definition ts_lex_keywords_198 :: lex_case where
  "ts_lex_keywords_198 eof c = (None,
     if c = ch CHR ''a'' then ADVANCE 226 else
     END_STATE)"

definition ts_lex_keywords_199 :: lex_case where
  "ts_lex_keywords_199 eof c = (Some anon_sym_match,
     END_STATE)"

definition ts_lex_keywords_200 :: lex_case where
  "ts_lex_keywords_200 eof c = (None,
     if c = ch CHR ''c'' then ADVANCE 227 else
     END_STATE)"

definition ts_lex_keywords_201 :: lex_case where
  "ts_lex_keywords_201 eof c = (Some anon_sym_owned,
     END_STATE)"

definition ts_lex_keywords_202 :: lex_case where
  "ts_lex_keywords_202 eof c = (Some anon_sym_print,
     END_STATE)"

definition ts_lex_keywords_203 :: lex_case where
  "ts_lex_keywords_203 eof c = (Some anon_sym_raise,
     if c = ch CHR ''s'' then ADVANCE 228 else
     END_STATE)"

definition ts_lex_keywords_204 :: lex_case where
  "ts_lex_keywords_204 eof c = (None,
     if c = ch CHR ''n'' then ADVANCE 229 else
     END_STATE)"

definition ts_lex_keywords_205 :: lex_case where
  "ts_lex_keywords_205 eof c = (None,
     if c = ch CHR ''t'' then ADVANCE 230 else
     END_STATE)"

definition ts_lex_keywords_206 :: lex_case where
  "ts_lex_keywords_206 eof c = (Some anon_sym_trait,
     END_STATE)"

definition ts_lex_keywords_207 :: lex_case where
  "ts_lex_keywords_207 eof c = (None,
     if c = ch CHR ''e'' then ADVANCE 231 else
     END_STATE)"

definition ts_lex_keywords_208 :: lex_case where
  "ts_lex_keywords_208 eof c = (Some anon_sym_where,
     END_STATE)"

definition ts_lex_keywords_209 :: lex_case where
  "ts_lex_keywords_209 eof c = (Some anon_sym_while,
     END_STATE)"

definition ts_lex_keywords_210 :: lex_case where
  "ts_lex_keywords_210 eof c = (Some anon_sym_yield,
     END_STATE)"

definition ts_lex_keywords_211 :: lex_case where
  "ts_lex_keywords_211 eof c = (None,
     if c = ch CHR ''t'' then ADVANCE 232 else
     END_STATE)"

definition ts_lex_keywords_212 :: lex_case where
  "ts_lex_keywords_212 eof c = (None,
     if c = ch CHR ''n'' then ADVANCE 233 else
     END_STATE)"

definition ts_lex_keywords_213 :: lex_case where
  "ts_lex_keywords_213 eof c = (None,
     if c = ch CHR ''r'' then ADVANCE 234 else
     END_STATE)"

definition ts_lex_keywords_214 :: lex_case where
  "ts_lex_keywords_214 eof c = (None,
     if c = ch CHR ''_'' then ADVANCE 235 else
     END_STATE)"

definition ts_lex_keywords_215 :: lex_case where
  "ts_lex_keywords_215 eof c = (Some anon_sym_assert,
     END_STATE)"

definition ts_lex_keywords_216 :: lex_case where
  "ts_lex_keywords_216 eof c = (None,
     if c = ch CHR ''e'' then ADVANCE 236 else
     END_STATE)"

definition ts_lex_keywords_217 :: lex_case where
  "ts_lex_keywords_217 eof c = (None,
     if c = ch CHR ''i'' then ADVANCE 237 else
     END_STATE)"

definition ts_lex_keywords_218 :: lex_case where
  "ts_lex_keywords_218 eof c = (None,
     if c = ch CHR ''m'' then ADVANCE 238 else
     END_STATE)"

definition ts_lex_keywords_219 :: lex_case where
  "ts_lex_keywords_219 eof c = (None,
     if c = ch CHR ''u'' then ADVANCE 239 else
     END_STATE)"

definition ts_lex_keywords_220 :: lex_case where
  "ts_lex_keywords_220 eof c = (Some anon_sym_deinit,
     END_STATE)"

definition ts_lex_keywords_221 :: lex_case where
  "ts_lex_keywords_221 eof c = (None,
     if c = ch CHR ''n'' then ADVANCE 240 else
     END_STATE)"

definition ts_lex_keywords_222 :: lex_case where
  "ts_lex_keywords_222 eof c = (None,
     if c = ch CHR ''y'' then ADVANCE 241 else
     END_STATE)"

definition ts_lex_keywords_223 :: lex_case where
  "ts_lex_keywords_223 eof c = (Some anon_sym_global,
     END_STATE)"

definition ts_lex_keywords_224 :: lex_case where
  "ts_lex_keywords_224 eof c = (Some anon_sym_import,
     END_STATE)"

definition ts_lex_keywords_225 :: lex_case where
  "ts_lex_keywords_225 eof c = (None,
     if c = ch CHR ''e'' then ADVANCE 242 else
     END_STATE)"

definition ts_lex_keywords_226 :: lex_case where
  "ts_lex_keywords_226 eof c = (Some anon_sym_lambda,
     END_STATE)"

definition ts_lex_keywords_227 :: lex_case where
  "ts_lex_keywords_227 eof c = (None,
     if c = ch CHR ''a'' then ADVANCE 243 else
     END_STATE)"

definition ts_lex_keywords_228 :: lex_case where
  "ts_lex_keywords_228 eof c = (Some anon_sym_raises,
     END_STATE)"

definition ts_lex_keywords_229 :: lex_case where
  "ts_lex_keywords_229 eof c = (Some anon_sym_return,
     END_STATE)"

definition ts_lex_keywords_230 :: lex_case where
  "ts_lex_keywords_230 eof c = (Some anon_sym_struct,
     END_STATE)"

definition ts_lex_keywords_231 :: lex_case where
  "ts_lex_keywords_231 eof c = (None,
     if c = ch CHR ''d'' then ADVANCE 244 else
     END_STATE)"

definition ts_lex_keywords_232 :: lex_case where
  "ts_lex_keywords_232 eof c = (None,
     if c = ch CHR ''i'' then ADVANCE 245 else
     END_STATE)"

definition ts_lex_keywords_233 :: lex_case where
  "ts_lex_keywords_233 eof c = (None,
     if c = ch CHR ''s'' then ADVANCE 246 else
     END_STATE)"

definition ts_lex_keywords_234 :: lex_case where
  "ts_lex_keywords_234 eof c = (None,
     if c = ch CHR ''e'' then ADVANCE 247 else
     END_STATE)"

definition ts_lex_keywords_235 :: lex_case where
  "ts_lex_keywords_235 eof c = (None,
     if c = ch CHR ''r'' then ADVANCE 248 else
     if c = ch CHR ''t'' then ADVANCE 249 else
     END_STATE)"

definition ts_lex_keywords_236 :: lex_case where
  "ts_lex_keywords_236 eof c = (None,
     if c = ch CHR ''d'' then ADVANCE 250 else
     END_STATE)"

definition ts_lex_keywords_237 :: lex_case where
  "ts_lex_keywords_237 eof c = (None,
     if c = ch CHR ''n'' then ADVANCE 251 else
     END_STATE)"

definition ts_lex_keywords_238 :: lex_case where
  "ts_lex_keywords_238 eof c = (None,
     if c = ch CHR ''e'' then ADVANCE 252 else
     END_STATE)"

definition ts_lex_keywords_239 :: lex_case where
  "ts_lex_keywords_239 eof c = (None,
     if c = ch CHR ''e'' then ADVANCE 253 else
     END_STATE)"

definition ts_lex_keywords_240 :: lex_case where
  "ts_lex_keywords_240 eof c = (None,
     if c = ch CHR ''g'' then ADVANCE 254 else
     END_STATE)"

definition ts_lex_keywords_241 :: lex_case where
  "ts_lex_keywords_241 eof c = (Some anon_sym_finally,
     END_STATE)"

definition ts_lex_keywords_242 :: lex_case where
  "ts_lex_keywords_242 eof c = (None,
     if c = ch CHR ''d'' then ADVANCE 255 else
     END_STATE)"

definition ts_lex_keywords_243 :: lex_case where
  "ts_lex_keywords_243 eof c = (None,
     if c = ch CHR ''l'' then ADVANCE 256 else
     END_STATE)"

definition ts_lex_keywords_244 :: lex_case where
  "ts_lex_keywords_244 eof c = (Some anon_sym_unified,
     END_STATE)"

definition ts_lex_keywords_245 :: lex_case where
  "ts_lex_keywords_245 eof c = (None,
     if c = ch CHR ''m'' then ADVANCE 257 else
     END_STATE)"

definition ts_lex_keywords_246 :: lex_case where
  "ts_lex_keywords_246 eof c = (None,
     if c = ch CHR ''i'' then ADVANCE 258 else
     END_STATE)"

definition ts_lex_keywords_247 :: lex_case where
  "ts_lex_keywords_247 eof c = (None,
     if c = ch CHR ''_'' then ADVANCE 259 else
     END_STATE)"

definition ts_lex_keywords_248 :: lex_case where
  "ts_lex_keywords_248 eof c = (None,
     if c = ch CHR ''e'' then ADVANCE 260 else
     END_STATE)"

definition ts_lex_keywords_249 :: lex_case where
  "ts_lex_keywords_249 eof c = (None,
     if c = ch CHR ''y'' then ADVANCE 261 else
     END_STATE)"

definition ts_lex_keywords_250 :: lex_case where
  "ts_lex_keywords_250 eof c = (Some anon_sym_borrowed,
     END_STATE)"

definition ts_lex_keywords_251 :: lex_case where
  "ts_lex_keywords_251 eof c = (None,
     if c = ch CHR ''g'' then ADVANCE 262 else
     END_STATE)"

definition ts_lex_keywords_252 :: lex_case where
  "ts_lex_keywords_252 eof c = (Some anon_sym_comptime,
     END_STATE)"

definition ts_lex_keywords_253 :: lex_case where
  "ts_lex_keywords_253 eof c = (Some anon_sym_continue,
     END_STATE)"

definition ts_lex_keywords_254 :: lex_case where
  "ts_lex_keywords_254 eof c = (Some anon_sym_escaping,
     END_STATE)"

definition ts_lex_keywords_255 :: lex_case where
  "ts_lex_keywords_255 eof c = (Some anon_sym_inferred,
     END_STATE)"

definition ts_lex_keywords_256 :: lex_case where
  "ts_lex_keywords_256 eof c = (Some anon_sym_nonlocal,
     END_STATE)"

definition ts_lex_keywords_257 :: lex_case where
  "ts_lex_keywords_257 eof c = (None,
     if c = ch CHR ''e'' then ADVANCE 263 else
     END_STATE)"

definition ts_lex_keywords_258 :: lex_case where
  "ts_lex_keywords_258 eof c = (None,
     if c = ch CHR ''o'' then ADVANCE 264 else
     END_STATE)"

definition ts_lex_keywords_259 :: lex_case where
  "ts_lex_keywords_259 eof c = (None,
     if c = ch CHR ''_'' then ADVANCE 265 else
     END_STATE)"

definition ts_lex_keywords_260 :: lex_case where
  "ts_lex_keywords_260 eof c = (None,
     if c = ch CHR ''g'' then ADVANCE 266 else
     END_STATE)"

definition ts_lex_keywords_261 :: lex_case where
  "ts_lex_keywords_261 eof c = (None,
     if c = ch CHR ''p'' then ADVANCE 267 else
     END_STATE)"

definition ts_lex_keywords_262 :: lex_case where
  "ts_lex_keywords_262 eof c = (Some anon_sym_capturing,
     END_STATE)"

definition ts_lex_keywords_263 :: lex_case where
  "ts_lex_keywords_263 eof c = (None,
     if c = ch CHR ''_'' then ADVANCE 268 else
     END_STATE)"

definition ts_lex_keywords_264 :: lex_case where
  "ts_lex_keywords_264 eof c = (None,
     if c = ch CHR ''n'' then ADVANCE 269 else
     END_STATE)"

definition ts_lex_keywords_265 :: lex_case where
  "ts_lex_keywords_265 eof c = (Some anon_sym___future__tok,
     END_STATE)"

definition ts_lex_keywords_266 :: lex_case where
  "ts_lex_keywords_266 eof c = (None,
     if c = ch CHR ''i'' then ADVANCE 270 else
     END_STATE)"

definition ts_lex_keywords_267 :: lex_case where
  "ts_lex_keywords_267 eof c = (None,
     if c = ch CHR ''e'' then ADVANCE 271 else
     END_STATE)"

definition ts_lex_keywords_268 :: lex_case where
  "ts_lex_keywords_268 eof c = (None,
     if c = ch CHR ''a'' then ADVANCE 272 else
     END_STATE)"

definition ts_lex_keywords_269 :: lex_case where
  "ts_lex_keywords_269 eof c = (Some anon_sym___extension,
     END_STATE)"

definition ts_lex_keywords_270 :: lex_case where
  "ts_lex_keywords_270 eof c = (None,
     if c = ch CHR ''o'' then ADVANCE 273 else
     END_STATE)"

definition ts_lex_keywords_271 :: lex_case where
  "ts_lex_keywords_271 eof c = (Some anon_sym___mlir_type,
     END_STATE)"

definition ts_lex_keywords_272 :: lex_case where
  "ts_lex_keywords_272 eof c = (None,
     if c = ch CHR ''s'' then ADVANCE 274 else
     END_STATE)"

definition ts_lex_keywords_273 :: lex_case where
  "ts_lex_keywords_273 eof c = (None,
     if c = ch CHR ''n'' then ADVANCE 275 else
     END_STATE)"

definition ts_lex_keywords_274 :: lex_case where
  "ts_lex_keywords_274 eof c = (None,
     if c = ch CHR ''s'' then ADVANCE 276 else
     END_STATE)"

definition ts_lex_keywords_275 :: lex_case where
  "ts_lex_keywords_275 eof c = (Some anon_sym___mlir_region,
     END_STATE)"

definition ts_lex_keywords_276 :: lex_case where
  "ts_lex_keywords_276 eof c = (None,
     if c = ch CHR ''e'' then ADVANCE 277 else
     END_STATE)"

definition ts_lex_keywords_277 :: lex_case where
  "ts_lex_keywords_277 eof c = (None,
     if c = ch CHR ''r'' then ADVANCE 278 else
     END_STATE)"

definition ts_lex_keywords_278 :: lex_case where
  "ts_lex_keywords_278 eof c = (None,
     if c = ch CHR ''t'' then ADVANCE 279 else
     END_STATE)"

definition ts_lex_keywords_279 :: lex_case where
  "ts_lex_keywords_279 eof c = (Some anon_sym___comptime_assert,
     END_STATE)"

lemmas ts_lex_keywords_state_defs =
  ts_lex_keywords_0_def ts_lex_keywords_1_def ts_lex_keywords_2_def ts_lex_keywords_3_def ts_lex_keywords_4_def ts_lex_keywords_5_def
  ts_lex_keywords_6_def ts_lex_keywords_7_def ts_lex_keywords_8_def ts_lex_keywords_9_def ts_lex_keywords_10_def ts_lex_keywords_11_def
  ts_lex_keywords_12_def ts_lex_keywords_13_def ts_lex_keywords_14_def ts_lex_keywords_15_def ts_lex_keywords_16_def ts_lex_keywords_17_def
  ts_lex_keywords_18_def ts_lex_keywords_19_def ts_lex_keywords_20_def ts_lex_keywords_21_def ts_lex_keywords_22_def ts_lex_keywords_23_def
  ts_lex_keywords_24_def ts_lex_keywords_25_def ts_lex_keywords_26_def ts_lex_keywords_27_def ts_lex_keywords_28_def ts_lex_keywords_29_def
  ts_lex_keywords_30_def ts_lex_keywords_31_def ts_lex_keywords_32_def ts_lex_keywords_33_def ts_lex_keywords_34_def ts_lex_keywords_35_def
  ts_lex_keywords_36_def ts_lex_keywords_37_def ts_lex_keywords_38_def ts_lex_keywords_39_def ts_lex_keywords_40_def ts_lex_keywords_41_def
  ts_lex_keywords_42_def ts_lex_keywords_43_def ts_lex_keywords_44_def ts_lex_keywords_45_def ts_lex_keywords_46_def ts_lex_keywords_47_def
  ts_lex_keywords_48_def ts_lex_keywords_49_def ts_lex_keywords_50_def ts_lex_keywords_51_def ts_lex_keywords_52_def ts_lex_keywords_53_def
  ts_lex_keywords_54_def ts_lex_keywords_55_def ts_lex_keywords_56_def ts_lex_keywords_57_def ts_lex_keywords_58_def ts_lex_keywords_59_def
  ts_lex_keywords_60_def ts_lex_keywords_61_def ts_lex_keywords_62_def ts_lex_keywords_63_def ts_lex_keywords_64_def ts_lex_keywords_65_def
  ts_lex_keywords_66_def ts_lex_keywords_67_def ts_lex_keywords_68_def ts_lex_keywords_69_def ts_lex_keywords_70_def ts_lex_keywords_71_def
  ts_lex_keywords_72_def ts_lex_keywords_73_def ts_lex_keywords_74_def ts_lex_keywords_75_def ts_lex_keywords_76_def ts_lex_keywords_77_def
  ts_lex_keywords_78_def ts_lex_keywords_79_def ts_lex_keywords_80_def ts_lex_keywords_81_def ts_lex_keywords_82_def ts_lex_keywords_83_def
  ts_lex_keywords_84_def ts_lex_keywords_85_def ts_lex_keywords_86_def ts_lex_keywords_87_def ts_lex_keywords_88_def ts_lex_keywords_89_def
  ts_lex_keywords_90_def ts_lex_keywords_91_def ts_lex_keywords_92_def ts_lex_keywords_93_def ts_lex_keywords_94_def ts_lex_keywords_95_def
  ts_lex_keywords_96_def ts_lex_keywords_97_def ts_lex_keywords_98_def ts_lex_keywords_99_def ts_lex_keywords_100_def ts_lex_keywords_101_def
  ts_lex_keywords_102_def ts_lex_keywords_103_def ts_lex_keywords_104_def ts_lex_keywords_105_def ts_lex_keywords_106_def ts_lex_keywords_107_def
  ts_lex_keywords_108_def ts_lex_keywords_109_def ts_lex_keywords_110_def ts_lex_keywords_111_def ts_lex_keywords_112_def ts_lex_keywords_113_def
  ts_lex_keywords_114_def ts_lex_keywords_115_def ts_lex_keywords_116_def ts_lex_keywords_117_def ts_lex_keywords_118_def ts_lex_keywords_119_def
  ts_lex_keywords_120_def ts_lex_keywords_121_def ts_lex_keywords_122_def ts_lex_keywords_123_def ts_lex_keywords_124_def ts_lex_keywords_125_def
  ts_lex_keywords_126_def ts_lex_keywords_127_def ts_lex_keywords_128_def ts_lex_keywords_129_def ts_lex_keywords_130_def ts_lex_keywords_131_def
  ts_lex_keywords_132_def ts_lex_keywords_133_def ts_lex_keywords_134_def ts_lex_keywords_135_def ts_lex_keywords_136_def ts_lex_keywords_137_def
  ts_lex_keywords_138_def ts_lex_keywords_139_def ts_lex_keywords_140_def ts_lex_keywords_141_def ts_lex_keywords_142_def ts_lex_keywords_143_def
  ts_lex_keywords_144_def ts_lex_keywords_145_def ts_lex_keywords_146_def ts_lex_keywords_147_def ts_lex_keywords_148_def ts_lex_keywords_149_def
  ts_lex_keywords_150_def ts_lex_keywords_151_def ts_lex_keywords_152_def ts_lex_keywords_153_def ts_lex_keywords_154_def ts_lex_keywords_155_def
  ts_lex_keywords_156_def ts_lex_keywords_157_def ts_lex_keywords_158_def ts_lex_keywords_159_def ts_lex_keywords_160_def ts_lex_keywords_161_def
  ts_lex_keywords_162_def ts_lex_keywords_163_def ts_lex_keywords_164_def ts_lex_keywords_165_def ts_lex_keywords_166_def ts_lex_keywords_167_def
  ts_lex_keywords_168_def ts_lex_keywords_169_def ts_lex_keywords_170_def ts_lex_keywords_171_def ts_lex_keywords_172_def ts_lex_keywords_173_def
  ts_lex_keywords_174_def ts_lex_keywords_175_def ts_lex_keywords_176_def ts_lex_keywords_177_def ts_lex_keywords_178_def ts_lex_keywords_179_def
  ts_lex_keywords_180_def ts_lex_keywords_181_def ts_lex_keywords_182_def ts_lex_keywords_183_def ts_lex_keywords_184_def ts_lex_keywords_185_def
  ts_lex_keywords_186_def ts_lex_keywords_187_def ts_lex_keywords_188_def ts_lex_keywords_189_def ts_lex_keywords_190_def ts_lex_keywords_191_def
  ts_lex_keywords_192_def ts_lex_keywords_193_def ts_lex_keywords_194_def ts_lex_keywords_195_def ts_lex_keywords_196_def ts_lex_keywords_197_def
  ts_lex_keywords_198_def ts_lex_keywords_199_def ts_lex_keywords_200_def ts_lex_keywords_201_def ts_lex_keywords_202_def ts_lex_keywords_203_def
  ts_lex_keywords_204_def ts_lex_keywords_205_def ts_lex_keywords_206_def ts_lex_keywords_207_def ts_lex_keywords_208_def ts_lex_keywords_209_def
  ts_lex_keywords_210_def ts_lex_keywords_211_def ts_lex_keywords_212_def ts_lex_keywords_213_def ts_lex_keywords_214_def ts_lex_keywords_215_def
  ts_lex_keywords_216_def ts_lex_keywords_217_def ts_lex_keywords_218_def ts_lex_keywords_219_def ts_lex_keywords_220_def ts_lex_keywords_221_def
  ts_lex_keywords_222_def ts_lex_keywords_223_def ts_lex_keywords_224_def ts_lex_keywords_225_def ts_lex_keywords_226_def ts_lex_keywords_227_def
  ts_lex_keywords_228_def ts_lex_keywords_229_def ts_lex_keywords_230_def ts_lex_keywords_231_def ts_lex_keywords_232_def ts_lex_keywords_233_def
  ts_lex_keywords_234_def ts_lex_keywords_235_def ts_lex_keywords_236_def ts_lex_keywords_237_def ts_lex_keywords_238_def ts_lex_keywords_239_def
  ts_lex_keywords_240_def ts_lex_keywords_241_def ts_lex_keywords_242_def ts_lex_keywords_243_def ts_lex_keywords_244_def ts_lex_keywords_245_def
  ts_lex_keywords_246_def ts_lex_keywords_247_def ts_lex_keywords_248_def ts_lex_keywords_249_def ts_lex_keywords_250_def ts_lex_keywords_251_def
  ts_lex_keywords_252_def ts_lex_keywords_253_def ts_lex_keywords_254_def ts_lex_keywords_255_def ts_lex_keywords_256_def ts_lex_keywords_257_def
  ts_lex_keywords_258_def ts_lex_keywords_259_def ts_lex_keywords_260_def ts_lex_keywords_261_def ts_lex_keywords_262_def ts_lex_keywords_263_def
  ts_lex_keywords_264_def ts_lex_keywords_265_def ts_lex_keywords_266_def ts_lex_keywords_267_def ts_lex_keywords_268_def ts_lex_keywords_269_def
  ts_lex_keywords_270_def ts_lex_keywords_271_def ts_lex_keywords_272_def ts_lex_keywords_273_def ts_lex_keywords_274_def ts_lex_keywords_275_def
  ts_lex_keywords_276_def ts_lex_keywords_277_def ts_lex_keywords_278_def ts_lex_keywords_279_def

text \<open>The \<open>switch\<close>: a state without a case returns \<open>false\<close>.\<close>

definition ts_lex_keywords_table :: "lex_case list" where
  "ts_lex_keywords_table =
    [ts_lex_keywords_0, ts_lex_keywords_1, ts_lex_keywords_2, ts_lex_keywords_3, ts_lex_keywords_4, ts_lex_keywords_5,
     ts_lex_keywords_6, ts_lex_keywords_7, ts_lex_keywords_8, ts_lex_keywords_9, ts_lex_keywords_10, ts_lex_keywords_11,
     ts_lex_keywords_12, ts_lex_keywords_13, ts_lex_keywords_14, ts_lex_keywords_15, ts_lex_keywords_16, ts_lex_keywords_17,
     ts_lex_keywords_18, ts_lex_keywords_19, ts_lex_keywords_20, ts_lex_keywords_21, ts_lex_keywords_22, ts_lex_keywords_23,
     ts_lex_keywords_24, ts_lex_keywords_25, ts_lex_keywords_26, ts_lex_keywords_27, ts_lex_keywords_28, ts_lex_keywords_29,
     ts_lex_keywords_30, ts_lex_keywords_31, ts_lex_keywords_32, ts_lex_keywords_33, ts_lex_keywords_34, ts_lex_keywords_35,
     ts_lex_keywords_36, ts_lex_keywords_37, ts_lex_keywords_38, ts_lex_keywords_39, ts_lex_keywords_40, ts_lex_keywords_41,
     ts_lex_keywords_42, ts_lex_keywords_43, ts_lex_keywords_44, ts_lex_keywords_45, ts_lex_keywords_46, ts_lex_keywords_47,
     ts_lex_keywords_48, ts_lex_keywords_49, ts_lex_keywords_50, ts_lex_keywords_51, ts_lex_keywords_52, ts_lex_keywords_53,
     ts_lex_keywords_54, ts_lex_keywords_55, ts_lex_keywords_56, ts_lex_keywords_57, ts_lex_keywords_58, ts_lex_keywords_59,
     ts_lex_keywords_60, ts_lex_keywords_61, ts_lex_keywords_62, ts_lex_keywords_63, ts_lex_keywords_64, ts_lex_keywords_65,
     ts_lex_keywords_66, ts_lex_keywords_67, ts_lex_keywords_68, ts_lex_keywords_69, ts_lex_keywords_70, ts_lex_keywords_71,
     ts_lex_keywords_72, ts_lex_keywords_73, ts_lex_keywords_74, ts_lex_keywords_75, ts_lex_keywords_76, ts_lex_keywords_77,
     ts_lex_keywords_78, ts_lex_keywords_79, ts_lex_keywords_80, ts_lex_keywords_81, ts_lex_keywords_82, ts_lex_keywords_83,
     ts_lex_keywords_84, ts_lex_keywords_85, ts_lex_keywords_86, ts_lex_keywords_87, ts_lex_keywords_88, ts_lex_keywords_89,
     ts_lex_keywords_90, ts_lex_keywords_91, ts_lex_keywords_92, ts_lex_keywords_93, ts_lex_keywords_94, ts_lex_keywords_95,
     ts_lex_keywords_96, ts_lex_keywords_97, ts_lex_keywords_98, ts_lex_keywords_99, ts_lex_keywords_100, ts_lex_keywords_101,
     ts_lex_keywords_102, ts_lex_keywords_103, ts_lex_keywords_104, ts_lex_keywords_105, ts_lex_keywords_106, ts_lex_keywords_107,
     ts_lex_keywords_108, ts_lex_keywords_109, ts_lex_keywords_110, ts_lex_keywords_111, ts_lex_keywords_112, ts_lex_keywords_113,
     ts_lex_keywords_114, ts_lex_keywords_115, ts_lex_keywords_116, ts_lex_keywords_117, ts_lex_keywords_118, ts_lex_keywords_119,
     ts_lex_keywords_120, ts_lex_keywords_121, ts_lex_keywords_122, ts_lex_keywords_123, ts_lex_keywords_124, ts_lex_keywords_125,
     ts_lex_keywords_126, ts_lex_keywords_127, ts_lex_keywords_128, ts_lex_keywords_129, ts_lex_keywords_130, ts_lex_keywords_131,
     ts_lex_keywords_132, ts_lex_keywords_133, ts_lex_keywords_134, ts_lex_keywords_135, ts_lex_keywords_136, ts_lex_keywords_137,
     ts_lex_keywords_138, ts_lex_keywords_139, ts_lex_keywords_140, ts_lex_keywords_141, ts_lex_keywords_142, ts_lex_keywords_143,
     ts_lex_keywords_144, ts_lex_keywords_145, ts_lex_keywords_146, ts_lex_keywords_147, ts_lex_keywords_148, ts_lex_keywords_149,
     ts_lex_keywords_150, ts_lex_keywords_151, ts_lex_keywords_152, ts_lex_keywords_153, ts_lex_keywords_154, ts_lex_keywords_155,
     ts_lex_keywords_156, ts_lex_keywords_157, ts_lex_keywords_158, ts_lex_keywords_159, ts_lex_keywords_160, ts_lex_keywords_161,
     ts_lex_keywords_162, ts_lex_keywords_163, ts_lex_keywords_164, ts_lex_keywords_165, ts_lex_keywords_166, ts_lex_keywords_167,
     ts_lex_keywords_168, ts_lex_keywords_169, ts_lex_keywords_170, ts_lex_keywords_171, ts_lex_keywords_172, ts_lex_keywords_173,
     ts_lex_keywords_174, ts_lex_keywords_175, ts_lex_keywords_176, ts_lex_keywords_177, ts_lex_keywords_178, ts_lex_keywords_179,
     ts_lex_keywords_180, ts_lex_keywords_181, ts_lex_keywords_182, ts_lex_keywords_183, ts_lex_keywords_184, ts_lex_keywords_185,
     ts_lex_keywords_186, ts_lex_keywords_187, ts_lex_keywords_188, ts_lex_keywords_189, ts_lex_keywords_190, ts_lex_keywords_191,
     ts_lex_keywords_192, ts_lex_keywords_193, ts_lex_keywords_194, ts_lex_keywords_195, ts_lex_keywords_196, ts_lex_keywords_197,
     ts_lex_keywords_198, ts_lex_keywords_199, ts_lex_keywords_200, ts_lex_keywords_201, ts_lex_keywords_202, ts_lex_keywords_203,
     ts_lex_keywords_204, ts_lex_keywords_205, ts_lex_keywords_206, ts_lex_keywords_207, ts_lex_keywords_208, ts_lex_keywords_209,
     ts_lex_keywords_210, ts_lex_keywords_211, ts_lex_keywords_212, ts_lex_keywords_213, ts_lex_keywords_214, ts_lex_keywords_215,
     ts_lex_keywords_216, ts_lex_keywords_217, ts_lex_keywords_218, ts_lex_keywords_219, ts_lex_keywords_220, ts_lex_keywords_221,
     ts_lex_keywords_222, ts_lex_keywords_223, ts_lex_keywords_224, ts_lex_keywords_225, ts_lex_keywords_226, ts_lex_keywords_227,
     ts_lex_keywords_228, ts_lex_keywords_229, ts_lex_keywords_230, ts_lex_keywords_231, ts_lex_keywords_232, ts_lex_keywords_233,
     ts_lex_keywords_234, ts_lex_keywords_235, ts_lex_keywords_236, ts_lex_keywords_237, ts_lex_keywords_238, ts_lex_keywords_239,
     ts_lex_keywords_240, ts_lex_keywords_241, ts_lex_keywords_242, ts_lex_keywords_243, ts_lex_keywords_244, ts_lex_keywords_245,
     ts_lex_keywords_246, ts_lex_keywords_247, ts_lex_keywords_248, ts_lex_keywords_249, ts_lex_keywords_250, ts_lex_keywords_251,
     ts_lex_keywords_252, ts_lex_keywords_253, ts_lex_keywords_254, ts_lex_keywords_255, ts_lex_keywords_256, ts_lex_keywords_257,
     ts_lex_keywords_258, ts_lex_keywords_259, ts_lex_keywords_260, ts_lex_keywords_261, ts_lex_keywords_262, ts_lex_keywords_263,
     ts_lex_keywords_264, ts_lex_keywords_265, ts_lex_keywords_266, ts_lex_keywords_267, ts_lex_keywords_268, ts_lex_keywords_269,
     ts_lex_keywords_270, ts_lex_keywords_271, ts_lex_keywords_272, ts_lex_keywords_273, ts_lex_keywords_274, ts_lex_keywords_275,
     ts_lex_keywords_276, ts_lex_keywords_277, ts_lex_keywords_278, ts_lex_keywords_279]"

definition ts_lex_keywords_switch :: "nat \<Rightarrow> lex_case option" where
  "ts_lex_keywords_switch state =
     (if state < length ts_lex_keywords_table then Some (ts_lex_keywords_table ! state) else None)"

definition ts_lex_keywords :: "'l lexer_ops \<Rightarrow> 'l \<Rightarrow> nat \<Rightarrow> (bool \<times> 'l) option" where
  "ts_lex_keywords L l state = lex_start L ts_lex_keywords_switch state l"

end
