(* ===== verification/Lex_Trie.thy ===== *)
theory Lex_Trie
  imports TS_Lexer "HOL-Library.Sublist"
begin

text \<open>
  Lexer states that form a trie: each state accepts at most one token and every transition
  is on one literal character to a deeper state. A run through such states finds the longest
  word of the trie that is a prefix of the input. The generated keyword lexer is one trie, and
  the operators of \<open>ts_lex\<close> form another.
\<close>

section \<open>Tries and their words\<close>

type_synonym trie = "nat \<Rightarrow> (nat option \<times> (int \<times> nat) list) option"

definition edge_action :: "(int \<times> nat) list \<Rightarrow> int \<Rightarrow> lex_action" where
  "edge_action es c = (case map_of es c of Some s \<Rightarrow> ADVANCE s | None \<Rightarrow> END_STATE)"

lemma edge_action_simps [simp]:
  "edge_action [] c = END_STATE"
  "edge_action ((d, s) # es) c = (if c = d then ADVANCE s else edge_action es c)"
  by (simp_all add: edge_action_def)

definition runs_trie :: "(nat \<Rightarrow> lex_case option) \<Rightarrow> trie \<Rightarrow> bool" where
  "runs_trie cases tr \<longleftrightarrow> (\<forall>s acc es. tr s = Some (acc, es) \<longrightarrow>
     (\<exists>body. cases s = Some body \<and> (\<forall>eof c. body eof c = (acc, edge_action es c))))"

fun trie_words :: "trie \<Rightarrow> nat \<Rightarrow> nat \<Rightarrow> (int list \<times> nat) list" where
  "trie_words tr 0 s = []"
| "trie_words tr (Suc n) s = (case tr s of None \<Rightarrow> [] | Some (acc, es) \<Rightarrow>
     (case acc of None \<Rightarrow> [] | Some t \<Rightarrow> [([], t)]) @
     concat (map (\<lambda>(c, s'). map (\<lambda>(w, t). (c # w, t)) (trie_words tr n s')) es))"

text \<open>The fuel \<open>n\<close> reaches every leaf, no state has two edges for a character, none for 0.\<close>

fun trie_closed :: "trie \<Rightarrow> nat \<Rightarrow> nat \<Rightarrow> bool" where
  "trie_closed tr 0 s = False"
| "trie_closed tr (Suc n) s = (case tr s of None \<Rightarrow> False | Some (acc, es) \<Rightarrow>
     distinct (map fst es) \<and> 0 \<notin> set (map fst es) \<and> list_all (\<lambda>(c, s'). trie_closed tr n s') es)"

text \<open>The same equations for fuel written as a numeral.\<close>

lemma trie_words_numeral:
  "trie_words tr (numeral k) s = (case tr s of None \<Rightarrow> [] | Some (acc, es) \<Rightarrow>
     (case acc of None \<Rightarrow> [] | Some t \<Rightarrow> [([], t)]) @
     concat (map (\<lambda>(c, s'). map (\<lambda>(w, t). (c # w, t)) (trie_words tr (pred_numeral k) s')) es))"
  by (simp add: numeral_eq_Suc)

lemma trie_closed_numeral:
  "trie_closed tr (numeral k) s = (case tr s of None \<Rightarrow> False | Some (acc, es) \<Rightarrow>
     distinct (map fst es) \<and> 0 \<notin> set (map fst es) \<and>
     list_all (\<lambda>(c, s'). trie_closed tr (pred_numeral k) s') es)"
  by (simp add: numeral_eq_Suc)

definition longest_word :: "(int list \<times> nat) list \<Rightarrow> int list \<Rightarrow> int list \<Rightarrow> nat \<Rightarrow> bool" where
  "longest_word ws cs w t \<longleftrightarrow> (w, t) \<in> set ws \<and> prefix w cs \<and>
     (\<forall>w' t'. (w', t') \<in> set ws \<longrightarrow> prefix w' cs \<longrightarrow> length w' \<le> length w)"

definition no_word :: "(int list \<times> nat) list \<Rightarrow> int list \<Rightarrow> bool" where
  "no_word ws cs \<longleftrightarrow> (\<forall>w t. (w, t) \<in> set ws \<longrightarrow> \<not> prefix w cs)"

definition edge_words :: "trie \<Rightarrow> nat \<Rightarrow> (int \<times> nat) list \<Rightarrow> (int list \<times> nat) list" where
  "edge_words tr n es = concat (map (\<lambda>(c, s'). map (\<lambda>(w, t). (c # w, t)) (trie_words tr n s')) es)"

lemma set_edge_words:
  "(w, t) \<in> set (edge_words tr n es) \<longleftrightarrow>
     (\<exists>c s' w'. (c, s') \<in> set es \<and> w = c # w' \<and> (w', t) \<in> set (trie_words tr n s'))"
  by (force simp: edge_words_def)

lemma edge_words_prefix:
  assumes "distinct (map fst es)" and "(c, s') \<in> set es"
  shows "(w, t) \<in> set (edge_words tr n es) \<and> prefix w (c # cs) \<longleftrightarrow>
    (\<exists>w'. w = c # w' \<and> (w', t) \<in> set (trie_words tr n s') \<and> prefix w' cs)"
proof -
  have same: "s'' = s'" if "(c, s'') \<in> set es" for s''
    using assms that by (metis map_of_is_SomeI option.inject)
  show ?thesis
  proof
    assume "(w, t) \<in> set (edge_words tr n es) \<and> prefix w (c # cs)"
    then obtain d s'' w' where "(d, s'') \<in> set es" "w = d # w'" "(w', t) \<in> set (trie_words tr n s'')"
      "prefix w (c # cs)" unfolding set_edge_words by blast
    with same show "\<exists>w'. w = c # w' \<and> (w', t) \<in> set (trie_words tr n s') \<and> prefix w' cs"
      by simp
  next
    assume "\<exists>w'. w = c # w' \<and> (w', t) \<in> set (trie_words tr n s') \<and> prefix w' cs"
    with assms(2) show "(w, t) \<in> set (edge_words tr n es) \<and> prefix w (c # cs)"
      unfolding set_edge_words by force
  qed
qed

lemma no_edge_words: "c \<notin> set (map fst es) \<Longrightarrow> no_word (edge_words tr n es) (c # cs)"
  unfolding no_word_def set_edge_words by (metis Cons_prefix_Cons fst_conv image_eqI list.set_map)

lemma no_edge_words_Nil: "no_word (edge_words tr n es) []"
  unfolding no_word_def set_edge_words by auto

lemma set_trie_words:
  "tr s = Some (acc, es) \<Longrightarrow> (w, t) \<in> set (trie_words tr (Suc n) s) \<longleftrightarrow>
     acc = Some t \<and> w = [] \<or> (w, t) \<in> set (edge_words tr n es)"
  by (auto simp: edge_words_def split: option.splits)

section \<open>A run takes the longest word\<close>

text \<open>
  \<open>trie_result\<close>: what a run that starts with result \<open>r0\<close> at lexer state \<open>t0\<close> gives for the
  words \<open>ws\<close>: the longest match, or nothing new.
\<close>

definition trie_result ::
    "(int list \<times> nat) list \<Rightarrow> bool \<Rightarrow> source_text \<Rightarrow> bool \<Rightarrow> source_text \<Rightarrow> bool" where
  "trie_result ws r0 t0 r t' \<longleftrightarrow>
     (if no_word ws (t_input t0) then r = r0 \<and> t_symbol t' = t_symbol t0 \<and> t_end t' = t_end t0
      else r \<and> (\<exists>w t. longest_word ws (t_input t0) w t \<and> t_symbol t' = t \<and>
        t_end t' = Some (t_pos t0 + length w)))"

lemma no_word_cases: "no_word ws cs \<or> (\<exists>w t. (w, t) \<in> set ws \<and> prefix w cs)"
  by (auto simp: no_word_def)

context ts_lexer
begin

lemma lex_run_edge:
  assumes "cases s = Some body" and "body (lx_eof L l) (text_lookahead (view l)) = (acc, edge_action es (text_lookahead (view l)))"
    and "map_of es (text_lookahead (view l)) = Some s'"
  shows "lex_run L cases r s l = lex_run L cases (r \<or> acc \<noteq> None) s'
    (lx_advance L (snd (ACCEPT_TOKEN L acc (r, l))) False)"
  using assms by (subst lex_run.simps) (simp add: Let_def edge_action_def fst_ACCEPT_TOKEN)

lemma lex_run_no_edge:
  assumes "cases s = Some body" and "body (lx_eof L l) (text_lookahead (view l)) = (acc, edge_action es (text_lookahead (view l)))"
    and "map_of es (text_lookahead (view l)) = None"
  shows "lex_run L cases r s l = Some (ACCEPT_TOKEN L acc (r, l))"
  using assms by (subst lex_run.simps) (simp add: Let_def edge_action_def)

text \<open>A state whose words are its own token and the words along its edges.\<close>

lemma trie_result_leaf:
  assumes "\<And>w t. (w, t) \<in> set ws \<longleftrightarrow> acc = Some t \<and> w = [] \<or> (w, t) \<in> set es"
    and "no_word es (t_input (view l))"
  shows "trie_result ws r (view l) (fst (ACCEPT_TOKEN L acc (r, l))) (view (snd (ACCEPT_TOKEN L acc (r, l))))"
proof (cases acc)
  case None
  then have "no_word ws (t_input (view l))" using assms by (auto simp: no_word_def)
  with None show ?thesis by (simp add: trie_result_def fst_ACCEPT_TOKEN view_ACCEPT_TOKEN)
next
  case (Some t)
  then have "longest_word ws (t_input (view l)) [] t" "\<not> no_word ws (t_input (view l))"
    using assms by (auto simp: no_word_def longest_word_def)
  with Some show ?thesis by (auto simp: trie_result_def fst_ACCEPT_TOKEN view_ACCEPT_TOKEN)
qed

lemma trie_result_step:
  assumes ws: "\<And>w t. (w, t) \<in> set ws \<longleftrightarrow> acc = Some t \<and> w = [] \<or> (w, t) \<in> set (edge_words tr n es)"
    and es: "distinct (map fst es)" "(c, s') \<in> set es" and inp: "t_input (view l) = c # cs"
    and sub: "trie_result (trie_words tr n s') (r \<or> acc \<noteq> None)
      (view (lx_advance L (snd (ACCEPT_TOKEN L acc (r, l))) False)) r' t'"
  shows "trie_result ws r (view l) r' t'"
proof -
  let ?l1 = "lx_advance L (snd (ACCEPT_TOKEN L acc (r, l))) False"
  have l1: "t_input (view ?l1) = cs" "t_pos (view ?l1) = Suc (t_pos (view l))"
    using inp by (simp_all add: view_ACCEPT_TOKEN t_pos_advance split: option.splits)
  note pre = edge_words_prefix [OF es, of _ _ tr n cs]
  show ?thesis
  proof (cases "no_word (trie_words tr n s') cs")
    case True
    then have none: "no_word (edge_words tr n es) (c # cs)" 
      using pre unfolding no_word_def by metis
    have "r' = (r \<or> acc \<noteq> None)" "t_symbol t' = t_symbol (view ?l1)" "t_end t' = t_end (view ?l1)"
      using sub True l1 by (simp_all add: trie_result_def)
    then show ?thesis
      using trie_result_leaf [of ws acc "edge_words tr n es" l r, OF ws] none
      unfolding inp trie_result_def fst_ACCEPT_TOKEN t_symbol_advance t_end_advance advance by metis
  next
    case False
    then obtain w t where w: "longest_word (trie_words tr n s') cs w t" "t_symbol t' = t"
      "t_end t' = Some (Suc (t_pos (view l)) + length w)" "r'"
      using sub l1 by (auto simp: trie_result_def)
    have "longest_word ws (c # cs) (c # w) t"
      unfolding longest_word_def
    proof (intro conjI allI impI)
      have "(c # w, t) \<in> set (edge_words tr n es) \<and> prefix (c # w) (c # cs)"
        using w(1) pre unfolding longest_word_def by blast
      then show "(c # w, t) \<in> set ws" "prefix (c # w) (c # cs)" using ws by blast+
    next
      fix w' t' assume "(w', t') \<in> set ws" and p: "prefix w' (c # cs)"
      then consider "w' = []" | "(w', t') \<in> set (edge_words tr n es)" using ws by blast
      then show "length w' \<le> length (c # w)"
      proof cases
        case 2
        with p pre obtain w'' where "w' = c # w''" "(w'', t') \<in> set (trie_words tr n s')" "prefix w'' cs"
          by blast
        then show ?thesis using w(1) unfolding longest_word_def by (metis Suc_le_mono length_Cons)
      qed simp
    qed
    moreover from this have "\<not> no_word ws (c # cs)" by (auto simp: no_word_def longest_word_def)
    ultimately show ?thesis using w inp by (auto simp: trie_result_def)
  qed
qed

lemma lex_run_trie:
  assumes run: "runs_trie cases tr"
  shows "trie_closed tr n s \<Longrightarrow> \<exists>r' l'. lex_run L cases r s l = Some (r', l') \<and>
    trie_result (trie_words tr n s) r (view l) r' (view l')"
proof (induction n arbitrary: s l r)
  case (Suc n)
  then obtain acc es where tr: "tr s = Some (acc, es)" and es: "distinct (map fst es)"
    "0 \<notin> set (map fst es)" and sub: "\<forall>(c, s') \<in> set es. trie_closed tr n s'"
    by (cases "tr s") (auto simp: list_all_iff)
  obtain body where body: "cases s = Some body" "\<And>eof c. body eof c = (acc, edge_action es c)"
    using run tr unfolding runs_trie_def by blast
  note ws = set_trie_words [where tr = tr and s = s and n = n, OF tr]
  let ?c = "text_lookahead (view l)"
  show ?case
  proof (cases "map_of es ?c")
    case None
    then have "?c \<notin> set (map fst es)" by (simp add: map_of_eq_None_iff)
    then have "no_word (edge_words tr n es) (t_input (view l))"
      by (cases "t_input (view l)") (simp_all add: no_edge_words no_edge_words_Nil)
    from trie_result_leaf [OF ws this, of r] lex_run_no_edge [where acc = acc and es = es and body = body and l = l and cases = cases and s = s, OF body(1) body(2) None, of r]
    show ?thesis by (metis prod.collapse)
  next
    case (Some s')
    then have mem: "(?c, s') \<in> set es" by (rule map_of_SomeD)
    with es(2) have "?c \<noteq> 0" by force
    then obtain cs where inp: "t_input (view l) = ?c # cs"
      by (cases "t_input (view l)") auto
    let ?l1 = "lx_advance L (snd (ACCEPT_TOKEN L acc (r, l))) False"
    have "trie_closed tr n s'" using sub mem by auto
    from Suc.IH [OF this, of "r \<or> acc \<noteq> None" ?l1] obtain r' l' where
      "lex_run L cases (r \<or> acc \<noteq> None) s' ?l1 = Some (r', l')"
      "trie_result (trie_words tr n s') (r \<or> acc \<noteq> None) (view ?l1) r' (view l')" by blast
    then show ?thesis using lex_run_edge [where acc = acc and es = es and body = body and l = l and cases = cases and s = s, OF body(1) body(2) Some, of r]
      trie_result_step [OF ws es(1) mem inp] by auto
  qed
qed simp

text \<open>The first step may leave from a state that is more than its edges at other characters.\<close>

lemma lex_run_trie_from:
  assumes run: "runs_trie cases tr" and es: "distinct (map fst es)" "0 \<notin> set (map fst es)"
      "list_all (\<lambda>(c, s'). trie_closed tr n s') es"
    and body: "cases s = Some body" "body (lx_eof L l) (text_lookahead (view l)) =
      (None, edge_action es (text_lookahead (view l)))"
  shows "\<exists>r' l'. lex_run L cases r s l = Some (r', l') \<and>
    trie_result (edge_words tr n es) r (view l) r' (view l')"
proof -
  let ?c = "text_lookahead (view l)"
  have ws: "(w, t) \<in> set (edge_words tr n es) \<longleftrightarrow>
      None = Some t \<and> w = [] \<or> (w, t) \<in> set (edge_words tr n es)" for w t by simp
  show ?thesis
  proof (cases "map_of es ?c")
    case None
    then have "?c \<notin> set (map fst es)" by (simp add: map_of_eq_None_iff)
    then have "no_word (edge_words tr n es) (t_input (view l))"
      by (cases "t_input (view l)") (simp_all add: no_edge_words no_edge_words_Nil)
    from trie_result_leaf [OF ws this, of r] lex_run_no_edge [where acc = None and es = es and body = body and l = l and cases = cases and s = s, OF body None, of r]
    show ?thesis by (metis prod.collapse)
  next
    case (Some s')
    then have mem: "(?c, s') \<in> set es" by (rule map_of_SomeD)
    with es(2) have "?c \<noteq> 0" by force
    then obtain cs where inp: "t_input (view l) = ?c # cs"
      by (cases "t_input (view l)") auto
    let ?l1 = "lx_advance L (snd (ACCEPT_TOKEN L None (r, l))) False"
    have "trie_closed tr n s'" using es(3) mem by (auto simp: list_all_iff)
    from lex_run_trie [OF run this, of "r \<or> None \<noteq> (None :: nat option)" ?l1] obtain r' l' where
      "lex_run L cases (r \<or> None \<noteq> (None :: nat option)) s' ?l1 = Some (r', l')"
      "trie_result (trie_words tr n s') (r \<or> None \<noteq> (None :: nat option)) (view ?l1) r' (view l')" by blast
    then show ?thesis using lex_run_edge [where acc = None and es = es and body = body and l = l and cases = cases and s = s, OF body Some, of r]
      trie_result_step [OF ws es(1) mem inp] by auto
  qed
qed

end

end
