(* ===== verification/Mojo_Lex_Proofs.thy ===== *)
theory Mojo_Lex_Proofs
  imports Mojo_Lex Mojo_Lex_Keywords Lex_Trie
begin

text \<open>
  What the generated lexer functions recognise. Both return on every input; the keyword lexer
  takes the longest keyword, \<open>ts_lex\<close> the longest operator, identifier or decimal integer.
\<close>

section \<open>The character sets\<close>

lemma identifier_set_1_ok: "ranges_ok sym_identifier_character_set_1"
  unfolding sym_identifier_character_set_1_def char_ranges_def by simp

lemma identifier_set_2_ok: "ranges_ok sym_identifier_character_set_2"
  unfolding sym_identifier_character_set_2_def char_ranges_def by simp

lemma length_identifier_sets:
  "length sym_identifier_character_set_1 = 685" "length sym_identifier_character_set_2 = 800"
  unfolding sym_identifier_character_set_1_def sym_identifier_character_set_2_def char_ranges_def by simp_all

lemma in_set_1: "in_set sym_identifier_character_set_1 685 c \<longleftrightarrow>
    (\<exists>r \<in> set sym_identifier_character_set_1. in_range r c)"
  unfolding in_set_def length_identifier_sets(1) [symmetric]
  by (subst set_contains_correct [OF identifier_set_1_ok]) (use length_identifier_sets in auto)

lemma in_set_2: "in_set sym_identifier_character_set_2 800 c \<longleftrightarrow>
    (\<exists>r \<in> set sym_identifier_character_set_2. in_range r c)"
  unfolding in_set_def length_identifier_sets(2) [symmetric]
  by (subst set_contains_correct [OF identifier_set_2_ok]) (use length_identifier_sets in auto)

text \<open>No range contains one of the characters \<open>cs\<close>.\<close>

definition misses :: "int list \<Rightarrow> TSCharacterRange list \<Rightarrow> bool" where
  "misses cs rs \<longleftrightarrow> list_all (\<lambda>r. list_all (\<lambda>c. c < range_start r \<or> range_end r < c) cs) rs"

lemma misses_in_range: "misses cs rs \<Longrightarrow> c \<in> set cs \<Longrightarrow> \<not> (\<exists>r \<in> set rs. in_range r c)"
  by (fastforce simp: misses_def list_all_iff in_range_def)

lemma identifier_set_1_misses:
  "misses [0, 91, 92, 93, 94, 123, 124, 125, 126, 0x200B, 0x2060, 0xFEFF] sym_identifier_character_set_1"
  unfolding misses_def sym_identifier_character_set_1_def char_ranges_def by simp

lemma identifier_set_2_misses: "misses [0] sym_identifier_character_set_2"
  unfolding misses_def sym_identifier_character_set_2_def char_ranges_def by simp

lemma lower_letter_rest:
  assumes "97 \<le> c" and "c \<le> 122"
  shows "in_set sym_identifier_character_set_2 800 c"
proof -
  have "sym_identifier_character_set_2 ! 3 = \<lparr>range_start = 97, range_end = 122\<rparr>"
    unfolding sym_identifier_character_set_2_def char_ranges_def by simp
  moreover have "3 < length sym_identifier_character_set_2" by (simp add: length_identifier_sets)
  ultimately have "\<lparr>range_start = 97, range_end = 122\<rparr> \<in> set sym_identifier_character_set_2"
    by (metis nth_mem)
  then show ?thesis unfolding in_set_2 by (rule bexI [rotated]) (simp add: in_range_def assms)
qed

section \<open>Every run ends\<close>

lemma length_ts_lex_table: "length ts_lex_table = 162"
  by (simp add: ts_lex_table_def)

lemma length_ts_lex_keywords_table: "length ts_lex_keywords_table = 280"
  by (simp add: ts_lex_keywords_table_def)

lemma not_identifier_at_eof:
  "\<not> in_set sym_identifier_character_set_1 685 0" "\<not> in_set sym_identifier_character_set_2 800 0"
  unfolding in_set_1 in_set_2
  by (rule misses_in_range [OF identifier_set_1_misses] misses_in_range [OF identifier_set_2_misses]; simp)+

text \<open>At the end of the input every case stops or goes to one of two accepting states.\<close>

lemma ts_lex_eof_actions:
  "list_all (\<lambda>body. snd (body True 0) \<in> {END_STATE, ADVANCE 55, ADVANCE 161}) ts_lex_table"
  by (simp add: ts_lex_table_def ts_lex_state_defs ADVANCE_MAP_def not_identifier_at_eof)

lemma ts_lex_switch_accepting:
  "ts_lex_switch 55 = Some ts_lex_55" "ts_lex_switch 161 = Some ts_lex_161"
  by (simp_all add: ts_lex_switch_def length_ts_lex_table) (simp_all add: ts_lex_table_def)

lemma ts_lex_stops: "stops_at_eof ts_lex_switch s"
proof (cases "s < 162")
  case True
  then have "eof_action ts_lex_switch s \<in> {END_STATE, ADVANCE 55, ADVANCE 161}"
    using ts_lex_eof_actions
    by (simp add: eof_action_def ts_lex_switch_def length_ts_lex_table list_all_length)
  moreover have "eof_action ts_lex_switch 55 = END_STATE" "eof_action ts_lex_switch 161 = END_STATE"
    by (simp_all add: eof_action_def ts_lex_switch_accepting ts_lex_55_def ts_lex_161_def)
  ultimately show ?thesis by (auto simp: stops_at_eof_def)
next
  case False
  then show ?thesis
    by (simp add: stops_at_eof_def eof_action_def ts_lex_switch_def length_ts_lex_table)
qed

lemma ts_lex_keywords_eof_actions:
  "list_all (\<lambda>body. snd (body True 0) = END_STATE) ts_lex_keywords_table"
  by (simp add: ts_lex_keywords_table_def ts_lex_keywords_state_defs)

lemma ts_lex_keywords_stops: "stops_at_eof ts_lex_keywords_switch s"
  using ts_lex_keywords_eof_actions
  by (simp add: stops_at_eof_def eof_action_def ts_lex_keywords_switch_def list_all_length)

section \<open>Keywords\<close>

text \<open>The states of the keyword lexer after its first, as a trie.\<close>

definition char_edges :: "(char \<times> nat) list \<Rightarrow> (int \<times> nat) list" where
  "char_edges = map (\<lambda>(c, s). (of_char c, s))"

definition keyword_states :: "(nat \<times> nat option \<times> (char \<times> nat) list) list" where
  "keyword_states = [
     (1, None, [(CHR ''a'', 25)]), (2, None, [(CHR ''o'', 26)]),
     (3, None, [(CHR ''r'', 27)]), (4, Some anon_sym__tok, [(CHR ''_'', 28)]),
     (5, None, [(CHR ''b'', 29), (CHR ''n'', 30), (CHR ''s'', 31), (CHR ''w'', 32)]), (6, None, [(CHR ''o'', 33), (CHR ''r'', 34)]),
     (7, None, [(CHR ''a'', 35), (CHR ''l'', 36), (CHR ''o'', 37)]), (8, None, [(CHR ''e'', 38)]),
     (9, None, [(CHR ''l'', 39), (CHR ''s'', 40), (CHR ''x'', 41)]), (10, None, [(CHR ''i'', 42), (CHR ''n'', 43), (CHR ''o'', 44), (CHR ''r'', 45)]),
     (11, None, [(CHR ''l'', 46)]), (12, None, [(CHR ''f'', 47), (CHR ''m'', 48), (CHR ''n'', 49), (CHR ''s'', 50)]),
     (13, None, [(CHR ''a'', 51)]), (14, None, [(CHR ''a'', 52), (CHR ''u'', 53)]),
     (15, None, [(CHR ''o'', 54)]), (16, None, [(CHR ''r'', 55), (CHR ''u'', 56), (CHR ''w'', 57)]),
     (17, None, [(CHR ''a'', 58), (CHR ''r'', 59)]), (18, None, [(CHR ''a'', 60), (CHR ''e'', 61)]),
     (19, None, [(CHR ''e'', 62), (CHR ''t'', 63)]), (20, None, [(CHR ''h'', 64), (CHR ''r'', 65), (CHR ''y'', 66)]),
     (21, None, [(CHR ''n'', 67)]), (22, None, [(CHR ''a'', 68)]),
     (23, None, [(CHR ''h'', 69), (CHR ''i'', 70)]), (24, None, [(CHR ''i'', 71)]),
     (25, None, [(CHR ''l'', 72)]), (26, None, [(CHR ''n'', 73)]),
     (27, None, [(CHR ''u'', 74)]), (28, None, [(CHR ''c'', 75), (CHR ''e'', 76), (CHR ''f'', 77), (CHR ''m'', 78)]),
     (29, None, [(CHR ''i'', 79)]), (30, None, [(CHR ''d'', 80)]),
     (31, Some anon_sym_as, [(CHR ''s'', 81), (CHR ''y'', 82)]), (32, None, [(CHR ''a'', 83)]),
     (33, None, [(CHR ''r'', 84)]), (34, None, [(CHR ''e'', 85)]),
     (35, None, [(CHR ''p'', 86), (CHR ''s'', 87)]), (36, None, [(CHR ''a'', 88)]),
     (37, None, [(CHR ''m'', 89), (CHR ''n'', 90)]), (38, None, [(CHR ''f'', 91), (CHR ''i'', 92), (CHR ''l'', 93)]),
     (39, None, [(CHR ''i'', 94), (CHR ''s'', 95)]), (40, None, [(CHR ''c'', 96)]),
     (41, None, [(CHR ''e'', 97)]), (42, None, [(CHR ''n'', 98)]),
     (43, Some anon_sym_fn, []), (44, None, [(CHR ''r'', 99)]),
     (45, None, [(CHR ''o'', 100)]), (46, None, [(CHR ''o'', 101)]),
     (47, Some anon_sym_if, []), (48, None, [(CHR ''p'', 102)]),
     (49, Some anon_sym_in, [(CHR ''f'', 103), (CHR ''o'', 104)]), (50, Some anon_sym_is, []),
     (51, None, [(CHR ''m'', 105)]), (52, None, [(CHR ''t'', 106)]),
     (53, None, [(CHR ''t'', 107)]), (54, None, [(CHR ''n'', 108), (CHR ''t'', 109)]),
     (55, Some anon_sym_or, []), (56, None, [(CHR ''t'', 110)]),
     (57, None, [(CHR ''n'', 111)]), (58, None, [(CHR ''s'', 112)]),
     (59, None, [(CHR ''i'', 113)]), (60, None, [(CHR ''i'', 114)]),
     (61, None, [(CHR ''a'', 115), (CHR ''f'', 116), (CHR ''t'', 117)]), (62, None, [(CHR ''l'', 118)]),
     (63, None, [(CHR ''r'', 119)]), (64, None, [(CHR ''i'', 120)]),
     (65, None, [(CHR ''a'', 121), (CHR ''y'', 122)]), (66, None, [(CHR ''p'', 123)]),
     (67, None, [(CHR ''i'', 124)]), (68, None, [(CHR ''r'', 125)]),
     (69, None, [(CHR ''e'', 126), (CHR ''i'', 127)]), (70, None, [(CHR ''t'', 128)]),
     (71, None, [(CHR ''e'', 129)]), (72, None, [(CHR ''s'', 130)]),
     (73, None, [(CHR ''e'', 131)]), (74, None, [(CHR ''e'', 132)]),
     (75, None, [(CHR ''o'', 133)]), (76, None, [(CHR ''x'', 134)]),
     (77, None, [(CHR ''u'', 135)]), (78, None, [(CHR ''l'', 136)]),
     (79, Some anon_sym_abi, []), (80, Some anon_sym_and, []),
     (81, None, [(CHR ''e'', 137)]), (82, None, [(CHR ''n'', 138)]),
     (83, None, [(CHR ''i'', 139)]), (84, None, [(CHR ''r'', 140)]),
     (85, None, [(CHR ''a'', 141)]), (86, None, [(CHR ''t'', 142)]),
     (87, None, [(CHR ''e'', 143)]), (88, None, [(CHR ''s'', 144)]),
     (89, None, [(CHR ''p'', 145)]), (90, None, [(CHR ''t'', 146)]),
     (91, Some anon_sym_def, []), (92, None, [(CHR ''n'', 147)]),
     (93, Some anon_sym_del, []), (94, None, [(CHR ''f'', 148)]),
     (95, None, [(CHR ''e'', 149)]), (96, None, [(CHR ''a'', 150)]),
     (97, None, [(CHR ''c'', 151)]), (98, None, [(CHR ''a'', 152)]),
     (99, Some anon_sym_for, []), (100, None, [(CHR ''m'', 153)]),
     (101, None, [(CHR ''b'', 154)]), (102, None, [(CHR ''o'', 155)]),
     (103, None, [(CHR ''e'', 156)]), (104, None, [(CHR ''u'', 157)]),
     (105, None, [(CHR ''b'', 158)]), (106, None, [(CHR ''c'', 159)]),
     (107, Some anon_sym_mut, []), (108, None, [(CHR ''l'', 160)]),
     (109, Some anon_sym_not, []), (110, Some anon_sym_out, []),
     (111, None, [(CHR ''e'', 161)]), (112, None, [(CHR ''s'', 162)]),
     (113, None, [(CHR ''n'', 163)]), (114, None, [(CHR ''s'', 164)]),
     (115, None, [(CHR ''d'', 165)]), (116, Some anon_sym_ref, []),
     (117, None, [(CHR ''u'', 166)]), (118, None, [(CHR ''f'', 167)]),
     (119, None, [(CHR ''u'', 168)]), (120, None, [(CHR ''n'', 169)]),
     (121, None, [(CHR ''i'', 170)]), (122, Some anon_sym_try, []),
     (123, None, [(CHR ''e'', 171)]), (124, None, [(CHR ''f'', 172)]),
     (125, Some anon_sym_var, []), (126, None, [(CHR ''r'', 173)]),
     (127, None, [(CHR ''l'', 174)]), (128, None, [(CHR ''h'', 175)]),
     (129, None, [(CHR ''l'', 176)]), (130, None, [(CHR ''e'', 177)]),
     (131, Some sym_none, []), (132, Some sym_true, []),
     (133, None, [(CHR ''m'', 178)]), (134, None, [(CHR ''t'', 179)]),
     (135, None, [(CHR ''t'', 180)]), (136, None, [(CHR ''i'', 181)]),
     (137, None, [(CHR ''r'', 182)]), (138, None, [(CHR ''c'', 183)]),
     (139, None, [(CHR ''t'', 184)]), (140, None, [(CHR ''o'', 185)]),
     (141, None, [(CHR ''k'', 186)]), (142, None, [(CHR ''u'', 187)]),
     (143, Some anon_sym_case, []), (144, None, [(CHR ''s'', 188)]),
     (145, None, [(CHR ''t'', 189)]), (146, None, [(CHR ''i'', 190)]),
     (147, None, [(CHR ''i'', 191)]), (148, Some anon_sym_elif, []),
     (149, Some anon_sym_else, []), (150, None, [(CHR ''p'', 192)]),
     (151, Some anon_sym_exec, []), (152, None, [(CHR ''l'', 193)]),
     (153, Some anon_sym_from, []), (154, None, [(CHR ''a'', 194)]),
     (155, None, [(CHR ''r'', 195)]), (156, None, [(CHR ''r'', 196)]),
     (157, None, [(CHR ''t'', 197)]), (158, None, [(CHR ''d'', 198)]),
     (159, None, [(CHR ''h'', 199)]), (160, None, [(CHR ''o'', 200)]),
     (161, None, [(CHR ''d'', 201)]), (162, Some anon_sym_pass, []),
     (163, None, [(CHR ''t'', 202)]), (164, None, [(CHR ''e'', 203)]),
     (165, Some anon_sym_read, []), (166, None, [(CHR ''r'', 204)]),
     (167, Some anon_sym_self, []), (168, None, [(CHR ''c'', 205)]),
     (169, Some anon_sym_thin, []), (170, None, [(CHR ''t'', 206)]),
     (171, Some anon_sym_type, []), (172, None, [(CHR ''i'', 207)]),
     (173, None, [(CHR ''e'', 208)]), (174, None, [(CHR ''e'', 209)]),
     (175, Some anon_sym_with, []), (176, None, [(CHR ''d'', 210)]),
     (177, Some sym_false, []), (178, None, [(CHR ''p'', 211)]),
     (179, None, [(CHR ''e'', 212)]), (180, None, [(CHR ''u'', 213)]),
     (181, None, [(CHR ''r'', 214)]), (182, None, [(CHR ''t'', 215)]),
     (183, Some anon_sym_async, []), (184, Some anon_sym_await, []),
     (185, None, [(CHR ''w'', 216)]), (186, Some anon_sym_break, []),
     (187, None, [(CHR ''r'', 217)]), (188, Some anon_sym_class, []),
     (189, None, [(CHR ''i'', 218)]), (190, None, [(CHR ''n'', 219)]),
     (191, None, [(CHR ''t'', 220)]), (192, None, [(CHR ''i'', 221)]),
     (193, None, [(CHR ''l'', 222)]), (194, None, [(CHR ''l'', 223)]),
     (195, None, [(CHR ''t'', 224)]), (196, None, [(CHR ''r'', 225)]),
     (197, Some anon_sym_inout, []), (198, None, [(CHR ''a'', 226)]),
     (199, Some anon_sym_match, []), (200, None, [(CHR ''c'', 227)]),
     (201, Some anon_sym_owned, []), (202, Some anon_sym_print, []),
     (203, Some anon_sym_raise, [(CHR ''s'', 228)]), (204, None, [(CHR ''n'', 229)]),
     (205, None, [(CHR ''t'', 230)]), (206, Some anon_sym_trait, []),
     (207, None, [(CHR ''e'', 231)]), (208, Some anon_sym_where, []),
     (209, Some anon_sym_while, []), (210, Some anon_sym_yield, []),
     (211, None, [(CHR ''t'', 232)]), (212, None, [(CHR ''n'', 233)]),
     (213, None, [(CHR ''r'', 234)]), (214, None, [(CHR ''_'', 235)]),
     (215, Some anon_sym_assert, []), (216, None, [(CHR ''e'', 236)]),
     (217, None, [(CHR ''i'', 237)]), (218, None, [(CHR ''m'', 238)]),
     (219, None, [(CHR ''u'', 239)]), (220, Some anon_sym_deinit, []),
     (221, None, [(CHR ''n'', 240)]), (222, None, [(CHR ''y'', 241)]),
     (223, Some anon_sym_global, []), (224, Some anon_sym_import, []),
     (225, None, [(CHR ''e'', 242)]), (226, Some anon_sym_lambda, []),
     (227, None, [(CHR ''a'', 243)]), (228, Some anon_sym_raises, []),
     (229, Some anon_sym_return, []), (230, Some anon_sym_struct, []),
     (231, None, [(CHR ''d'', 244)]), (232, None, [(CHR ''i'', 245)]),
     (233, None, [(CHR ''s'', 246)]), (234, None, [(CHR ''e'', 247)]),
     (235, None, [(CHR ''r'', 248), (CHR ''t'', 249)]), (236, None, [(CHR ''d'', 250)]),
     (237, None, [(CHR ''n'', 251)]), (238, None, [(CHR ''e'', 252)]),
     (239, None, [(CHR ''e'', 253)]), (240, None, [(CHR ''g'', 254)]),
     (241, Some anon_sym_finally, []), (242, None, [(CHR ''d'', 255)]),
     (243, None, [(CHR ''l'', 256)]), (244, Some anon_sym_unified, []),
     (245, None, [(CHR ''m'', 257)]), (246, None, [(CHR ''i'', 258)]),
     (247, None, [(CHR ''_'', 259)]), (248, None, [(CHR ''e'', 260)]),
     (249, None, [(CHR ''y'', 261)]), (250, Some anon_sym_borrowed, []),
     (251, None, [(CHR ''g'', 262)]), (252, Some anon_sym_comptime, []),
     (253, Some anon_sym_continue, []), (254, Some anon_sym_escaping, []),
     (255, Some anon_sym_inferred, []), (256, Some anon_sym_nonlocal, []),
     (257, None, [(CHR ''e'', 263)]), (258, None, [(CHR ''o'', 264)]),
     (259, None, [(CHR ''_'', 265)]), (260, None, [(CHR ''g'', 266)]),
     (261, None, [(CHR ''p'', 267)]), (262, Some anon_sym_capturing, []),
     (263, None, [(CHR ''_'', 268)]), (264, None, [(CHR ''n'', 269)]),
     (265, Some anon_sym___future__tok, []), (266, None, [(CHR ''i'', 270)]),
     (267, None, [(CHR ''e'', 271)]), (268, None, [(CHR ''a'', 272)]),
     (269, Some anon_sym___extension, []), (270, None, [(CHR ''o'', 273)]),
     (271, Some anon_sym___mlir_type, []), (272, None, [(CHR ''s'', 274)]),
     (273, None, [(CHR ''n'', 275)]), (274, None, [(CHR ''s'', 276)]),
     (275, Some anon_sym___mlir_region, []), (276, None, [(CHR ''e'', 277)]),
     (277, None, [(CHR ''r'', 278)]), (278, None, [(CHR ''t'', 279)]),
     (279, Some anon_sym___comptime_assert, [])]"

definition states_trie :: "(nat \<times> nat option \<times> (char \<times> nat) list) list \<Rightarrow> trie" where
  "states_trie states s = map_option (map_prod id char_edges) (map_of states s)"

lemma states_trie_entries:
  "distinct (map fst states) \<Longrightarrow>
     list_all (\<lambda>(s, acc, es). states_trie states s = Some (acc, char_edges es)) states"
  by (auto simp: list_all_iff states_trie_def)

definition keyword_first :: "(char \<times> nat) list" where
  "keyword_first = [
     (CHR ''F'', 1), (CHR ''N'', 2), (CHR ''T'', 3), (CHR ''_'', 4), (CHR ''a'', 5),
     (CHR ''b'', 6), (CHR ''c'', 7), (CHR ''d'', 8), (CHR ''e'', 9), (CHR ''f'', 10),
     (CHR ''g'', 11), (CHR ''i'', 12), (CHR ''l'', 13), (CHR ''m'', 14), (CHR ''n'', 15),
     (CHR ''o'', 16), (CHR ''p'', 17), (CHR ''r'', 18), (CHR ''s'', 19), (CHR ''t'', 20),
     (CHR ''u'', 21), (CHR ''v'', 22), (CHR ''w'', 23), (CHR ''y'', 24)]"

text \<open>The keywords, with the symbols they are.\<close>

definition keyword_list :: "(string \<times> nat) list" where
  "keyword_list = [
     (''False'', sym_false), (''None'', sym_none), (''True'', sym_true),
     (''_'', anon_sym__tok), (''__comptime_assert'', anon_sym___comptime_assert), (''__extension'', anon_sym___extension),
     (''__future__'', anon_sym___future__tok), (''__mlir_region'', anon_sym___mlir_region), (''__mlir_type'', anon_sym___mlir_type),
     (''abi'', anon_sym_abi), (''and'', anon_sym_and), (''as'', anon_sym_as),
     (''assert'', anon_sym_assert), (''async'', anon_sym_async), (''await'', anon_sym_await),
     (''borrowed'', anon_sym_borrowed), (''break'', anon_sym_break), (''capturing'', anon_sym_capturing),
     (''case'', anon_sym_case), (''class'', anon_sym_class), (''comptime'', anon_sym_comptime),
     (''continue'', anon_sym_continue), (''def'', anon_sym_def), (''deinit'', anon_sym_deinit),
     (''del'', anon_sym_del), (''elif'', anon_sym_elif), (''else'', anon_sym_else),
     (''escaping'', anon_sym_escaping), (''exec'', anon_sym_exec), (''finally'', anon_sym_finally),
     (''fn'', anon_sym_fn), (''for'', anon_sym_for), (''from'', anon_sym_from),
     (''global'', anon_sym_global), (''if'', anon_sym_if), (''import'', anon_sym_import),
     (''in'', anon_sym_in), (''inferred'', anon_sym_inferred), (''inout'', anon_sym_inout),
     (''is'', anon_sym_is), (''lambda'', anon_sym_lambda), (''match'', anon_sym_match),
     (''mut'', anon_sym_mut), (''nonlocal'', anon_sym_nonlocal), (''not'', anon_sym_not),
     (''or'', anon_sym_or), (''out'', anon_sym_out), (''owned'', anon_sym_owned),
     (''pass'', anon_sym_pass), (''print'', anon_sym_print), (''raise'', anon_sym_raise),
     (''raises'', anon_sym_raises), (''read'', anon_sym_read), (''ref'', anon_sym_ref),
     (''return'', anon_sym_return), (''self'', anon_sym_self), (''struct'', anon_sym_struct),
     (''thin'', anon_sym_thin), (''trait'', anon_sym_trait), (''try'', anon_sym_try),
     (''type'', anon_sym_type), (''unified'', anon_sym_unified), (''var'', anon_sym_var),
     (''where'', anon_sym_where), (''while'', anon_sym_while), (''with'', anon_sym_with),
     (''yield'', anon_sym_yield)]"

definition char_words :: "(string \<times> nat) list \<Rightarrow> (int list \<times> nat) list" where
  "char_words = map (\<lambda>(w, t). (map of_char w, t))"

lemma keyword_bodies:
  "list_all2 (\<lambda>body e. body = (\<lambda>eof c. (fst (snd e), edge_action (char_edges (snd (snd e))) c)))
     (tl ts_lex_keywords_table) keyword_states"
  unfolding ts_lex_keywords_table_def keyword_states_def list.sel list_all2_Cons list_all2_Nil
  by (intro conjI ext TrueI; simp add: ts_lex_keywords_state_defs char_edges_def)

lemma keyword_states_numbers: "map fst keyword_states = [1..<280]"
  by code_simp

definition keyword_trie :: trie where
  "keyword_trie = states_trie keyword_states"

lemma keyword_runs_trie: "runs_trie ts_lex_keywords_switch keyword_trie"
  unfolding runs_trie_def keyword_trie_def
proof (intro allI impI)
  fix s acc es assume "states_trie keyword_states s = Some (acc, es)"
  then obtain es' where "map_of keyword_states s = Some (acc, es')" and es: "es = char_edges es'"
    by (auto simp: states_trie_def)
  then have "(s, acc, es') \<in> set keyword_states" by (simp add: map_of_SomeD)
  then obtain i where i: "i < length keyword_states" "keyword_states ! i = (s, acc, es')"
    by (auto simp: in_set_conv_nth)
  have len: "length keyword_states = 279" using arg_cong [OF keyword_states_numbers, of length] by simp
  have "map fst keyword_states ! i = 1 + i" using i(1) len by (simp add: keyword_states_numbers)
  then have s: "s = Suc i" using i by simp
  have "tl ts_lex_keywords_table ! i = (\<lambda>eof c. (acc, edge_action es c))"
    using list_all2_nthD2 [OF keyword_bodies i(1)] i(2) es by simp
  then have "ts_lex_keywords_table ! s = (\<lambda>eof c. (acc, edge_action es c))"
    using i(1) len by (simp add: s nth_tl length_ts_lex_keywords_table)
  then show "\<exists>body. ts_lex_keywords_switch s = Some body \<and> (\<forall>eof c. body eof c = (acc, edge_action es c))"
    using i(1) len s by (simp add: ts_lex_keywords_switch_def length_ts_lex_keywords_table)
qed

lemma keyword_first_ok: "distinct (map fst (char_edges keyword_first))"
    "0 \<notin> set (map fst (char_edges keyword_first))"
  by code_simp+

lemma keyword_trie_table:
  "list_all (\<lambda>(s, acc, es). keyword_trie s = Some (acc, char_edges es)) keyword_states"
  unfolding keyword_trie_def by (rule states_trie_entries) (simp add: keyword_states_numbers)

lemmas keyword_trie_entries = keyword_trie_table
  [unfolded keyword_states_def list.pred_inject prod.case char_edges_def list.map simp_thms One_nat_def]

lemma keyword_first_closed:
  "list_all (\<lambda>(c, s'). trie_closed keyword_trie 20 s') (char_edges keyword_first)"
  by (simp add: keyword_trie_entries keyword_first_def char_edges_def trie_closed_numeral)

lemma keyword_words:
  "edge_words keyword_trie 20 (char_edges keyword_first) = char_words keyword_list"
  by (simp add: keyword_trie_entries edge_words_def keyword_first_def char_edges_def trie_words_numeral
      char_words_def keyword_list_def)

section \<open>Operators\<close>

text \<open>
  The operators and brackets of the states 0 and 52, where every token is tried; \<open>.\<close> and \<open>!\<close>,
  after which a number or a type conversion may follow, are left out.
\<close>

definition operator_states :: "(nat \<times> nat option \<times> (char \<times> nat) list) list" where
  "operator_states = [
     (56, Some anon_sym_SEMI, []), (59, Some anon_sym_LPAREN, []),
     (60, Some anon_sym_RPAREN, []), (61, Some anon_sym_COMMA, []),
     (63, Some anon_sym_STAR, [(CHR ''*'', 79), (CHR ''='', 117)]), (67, Some anon_sym_GT_GT, [(CHR ''='', 123)]),
     (68, Some anon_sym_COLON_EQ, []), (70, Some anon_sym_COLON, [(CHR ''='', 68)]),
     (73, Some anon_sym_LBRACK, []), (74, Some anon_sym_RBRACK, []),
     (75, Some anon_sym_DASH_GT, []), (76, Some anon_sym_LBRACE, []),
     (77, Some anon_sym_RBRACE, []), (79, Some anon_sym_STAR_STAR, [(CHR ''='', 122)]),
     (81, Some anon_sym_EQ, [(CHR ''='', 109)]), (83, Some anon_sym_SLASH_SLASH, [(CHR ''='', 120)]),
     (86, Some anon_sym_AT, [(CHR ''='', 119)]), (89, Some anon_sym_DASH, [(CHR ''='', 116), (CHR ''>'', 75)]),
     (92, Some anon_sym_PIPE, [(CHR ''='', 127)]), (94, Some anon_sym_PLUS, [(CHR ''='', 115)]),
     (96, Some anon_sym_CARET, [(CHR ''='', 126)]), (97, Some anon_sym_SLASH, [(CHR ''/'', 83), (CHR ''='', 118)]),
     (100, Some anon_sym_PERCENT, [(CHR ''='', 121)]), (102, Some anon_sym_AMP, [(CHR ''='', 125)]),
     (104, Some anon_sym_LT_LT, [(CHR ''='', 124)]), (105, Some anon_sym_TILDE, []),
     (106, Some anon_sym_LT, [(CHR ''<'', 104), (CHR ''='', 108), (CHR ''>'', 114)]), (108, Some anon_sym_LT_EQ, []),
     (109, Some anon_sym_EQ_EQ, []), (111, Some anon_sym_GT_EQ, []),
     (112, Some anon_sym_GT, [(CHR ''='', 111), (CHR ''>'', 67)]), (114, Some anon_sym_LT_GT, []),
     (115, Some anon_sym_PLUS_EQ, []), (116, Some anon_sym_DASH_EQ, []),
     (117, Some anon_sym_STAR_EQ, []), (118, Some anon_sym_SLASH_EQ, []),
     (119, Some anon_sym_AT_EQ, []), (120, Some anon_sym_SLASH_SLASH_EQ, []),
     (121, Some anon_sym_PERCENT_EQ, []), (122, Some anon_sym_STAR_STAR_EQ, []),
     (123, Some anon_sym_GT_GT_EQ, []), (124, Some anon_sym_LT_LT_EQ, []),
     (125, Some anon_sym_AMP_EQ, []), (126, Some anon_sym_CARET_EQ, []),
     (127, Some anon_sym_PIPE_EQ, [])]"

definition operator_first :: "(char \<times> nat) list" where
  "operator_first = [
     (CHR ''%'', 100), (CHR ''&'', 102), (CHR ''('', 59), (CHR '')'', 60), (CHR ''*'', 63),
     (CHR ''+'', 94), (CHR '','', 61), (CHR ''-'', 89), (CHR ''/'', 97), (CHR '':'', 70),
     (CHR '';'', 56), (CHR ''<'', 106), (CHR ''='', 81), (CHR ''>'', 112), (CHR ''@'', 86),
     (CHR ''['', 73), (CHR '']'', 74), (CHR ''^'', 96), (CHR ''{'', 76), (CHR ''|'', 92),
     (CHR ''}'', 77), (CHR ''~'', 105)]"

definition operator_list :: "(string \<times> nat) list" where
  "operator_list = [
     (''%'', anon_sym_PERCENT), (''%='', anon_sym_PERCENT_EQ), (''&'', anon_sym_AMP),
     (''&='', anon_sym_AMP_EQ), (''('', anon_sym_LPAREN), ('')'', anon_sym_RPAREN),
     (''*'', anon_sym_STAR), (''**'', anon_sym_STAR_STAR), (''**='', anon_sym_STAR_STAR_EQ),
     (''*='', anon_sym_STAR_EQ), (''+'', anon_sym_PLUS), (''+='', anon_sym_PLUS_EQ),
     ('','', anon_sym_COMMA), (''-'', anon_sym_DASH), (''-='', anon_sym_DASH_EQ),
     (''->'', anon_sym_DASH_GT), (''/'', anon_sym_SLASH), (''//'', anon_sym_SLASH_SLASH),
     (''//='', anon_sym_SLASH_SLASH_EQ), (''/='', anon_sym_SLASH_EQ), ('':'', anon_sym_COLON),
     ('':='', anon_sym_COLON_EQ), ('';'', anon_sym_SEMI), (''<'', anon_sym_LT),
     (''<<'', anon_sym_LT_LT), (''<<='', anon_sym_LT_LT_EQ), (''<='', anon_sym_LT_EQ),
     (''<>'', anon_sym_LT_GT), (''='', anon_sym_EQ), (''=='', anon_sym_EQ_EQ),
     (''>'', anon_sym_GT), (''>='', anon_sym_GT_EQ), (''>>'', anon_sym_GT_GT),
     (''>>='', anon_sym_GT_GT_EQ), (''@'', anon_sym_AT), (''@='', anon_sym_AT_EQ),
     (''['', anon_sym_LBRACK), ('']'', anon_sym_RBRACK), (''^'', anon_sym_CARET),
     (''^='', anon_sym_CARET_EQ), (''{'', anon_sym_LBRACE), (''|'', anon_sym_PIPE),
     (''|='', anon_sym_PIPE_EQ), (''}'', anon_sym_RBRACE), (''~'', anon_sym_TILDE)]"

lemma operator_bodies:
  "list_all (\<lambda>(s, acc, es). s < 162 \<and>
     ts_lex_table ! s = (\<lambda>eof c. (acc, edge_action (char_edges es) c))) operator_states"
  unfolding operator_states_def list.pred_inject prod.case
  by (intro conjI TrueI; simp add: fun_eq_iff ts_lex_table_def ts_lex_state_defs char_edges_def)

definition operator_trie :: trie where
  "operator_trie = states_trie operator_states"

lemma operator_runs_trie: "runs_trie ts_lex_switch operator_trie"
  unfolding runs_trie_def operator_trie_def
proof (intro allI impI)
  fix s acc es assume "states_trie operator_states s = Some (acc, es)"
  then obtain es' where "map_of operator_states s = Some (acc, es')" and es: "es = char_edges es'"
    by (auto simp: states_trie_def)
  then have "(s, acc, es') \<in> set operator_states" by (simp add: map_of_SomeD)
  with operator_bodies es show "\<exists>body. ts_lex_switch s = Some body \<and> (\<forall>eof c. body eof c = (acc, edge_action es c))"
    by (force simp: list_all_iff ts_lex_switch_def length_ts_lex_table)
qed

lemma operator_first_ok: "distinct (map fst (char_edges operator_first))"
    "0 \<notin> set (map fst (char_edges operator_first))"
  by code_simp+

lemma operator_trie_table:
  "list_all (\<lambda>(s, acc, es). operator_trie s = Some (acc, char_edges es)) operator_states"
  unfolding operator_trie_def by (rule states_trie_entries) code_simp

lemmas operator_trie_entries = operator_trie_table
  [unfolded operator_states_def list.pred_inject prod.case char_edges_def list.map simp_thms One_nat_def]

lemma operator_first_closed:
  "list_all (\<lambda>(c, s'). trie_closed operator_trie 3 s') (char_edges operator_first)"
  by (simp add: operator_trie_entries operator_first_def char_edges_def trie_closed_numeral)

lemma operator_words:
  "edge_words operator_trie 3 (char_edges operator_first) = char_words operator_list"
  by (simp add: operator_trie_entries edge_words_def operator_first_def char_edges_def trie_words_numeral
      char_words_def operator_list_def)

lemma operator_first_step:
  assumes "c \<in> set (map fst (char_edges operator_first))"
  shows "ts_lex_0 False c = (None, edge_action (char_edges operator_first) c)"
    "ts_lex_52 False c = (None, edge_action (char_edges operator_first) c)"
  using assms
  unfolding operator_first_def char_edges_def list.map prod.case list.set insert_iff empty_iff fst_conv
  by (elim disjE; simp add: ts_lex_0_def ts_lex_52_def)+

section \<open>Identifiers and numbers\<close>

context ts_lexer
begin

text \<open>A state that consumes the characters of a class and accepts its token at the end of the run.\<close>

lemma lex_run_stay:
  assumes body: "cases s = Some body" "\<And>e c. p c \<Longrightarrow> body e c = (Some tok, ADVANCE s)"
    and stop: "\<And>e. body e (case rest of [] \<Rightarrow> 0 | c # _ \<Rightarrow> c) = (Some tok, END_STATE)"
  shows "t_input (view l) = cs @ rest \<Longrightarrow> \<forall>c \<in> set cs. p c \<Longrightarrow>
    \<exists>l'. lex_run L cases r s l = Some (True, l') \<and> t_symbol (view l') = tok \<and>
      t_end (view l') = Some (t_pos (view l) + length cs)"
proof (induction cs arbitrary: l r)
  case Nil
  then have "text_lookahead (view l) = (case rest of [] \<Rightarrow> 0 | c # _ \<Rightarrow> c)"
    by (simp add: text_lookahead_def)
  with body(1) stop show ?case
    by (subst lex_run.simps) (simp add: Let_def ACCEPT_TOKEN_def)
next
  case (Cons c cs)
  let ?l1 = "lx_advance L (snd (ACCEPT_TOKEN L (Some tok) (r, l))) False"
  have l1: "t_input (view ?l1) = cs @ rest" "t_pos (view ?l1) = Suc (t_pos (view l))"
    using Cons.prems(1) by (simp_all add: view_ACCEPT_TOKEN t_pos_advance)
  have "lex_run L cases r s l = lex_run L cases True s ?l1"
    using Cons.prems body by (subst lex_run.simps) (simp add: Let_def ACCEPT_TOKEN_def)
  with Cons.IH [OF l1(1), of True] Cons.prems(2) l1(2) show ?case by auto
qed

end

text \<open>
  \<open>word_state s k\<close>: in state \<open>s\<close> the rest of a word is consumed, and the token is \<open>except\<close> exactly
  when the rest is \<open>k\<close>.
\<close>

definition ident_first :: "int \<Rightarrow> bool" where
  "ident_first c \<longleftrightarrow> (\<exists>r \<in> set sym_identifier_character_set_1. in_range r c)"

definition ident_rest :: "int \<Rightarrow> bool" where
  "ident_rest c \<longleftrightarrow> (\<exists>r \<in> set sym_identifier_character_set_2. in_range r c)"

definition ends_word :: "int list \<Rightarrow> bool" where
  "ends_word rest \<longleftrightarrow> rest = [] \<or> \<not> ident_rest (hd rest)"

definition word_state ::
    "'l lexer_ops \<Rightarrow> ('l \<Rightarrow> source_text) \<Rightarrow> nat \<Rightarrow> (int list \<Rightarrow> nat) \<Rightarrow> bool" where
  "word_state L view s tok \<longleftrightarrow> (\<forall>l cs rest r. t_input (view l) = cs @ rest \<longrightarrow>
     list_all ident_rest cs \<longrightarrow> ends_word rest \<longrightarrow>
     (\<exists>l'. lex_run L ts_lex_switch r s l = Some (True, l') \<and> t_symbol (view l') = tok cs \<and>
       t_end (view l') = Some (t_pos (view l) + length cs)))"

definition word_token :: "int list \<Rightarrow> int list \<Rightarrow> nat" where
  "word_token k cs = (if cs = k then anon_sym_except else sym_identifier)"

lemma not_ident_rest_0: "\<not> ident_rest 0"
  using not_identifier_at_eof(2) by (simp add: ident_rest_def in_set_2)

lemma except_chars_rest:
  "list_all (in_set sym_identifier_character_set_2 800) (map of_char ''except'')"
  by (simp add: lower_letter_rest)

lemma letter_a_rest: "in_set sym_identifier_character_set_2 800 97"
  by (simp add: lower_letter_rest)

lemma ts_lex_switch_words:
  "ts_lex_switch 159 = Some ts_lex_159" "ts_lex_switch 158 = Some ts_lex_158"
  "ts_lex_switch 150 = Some ts_lex_150" "ts_lex_switch 152 = Some ts_lex_152"
  "ts_lex_switch 154 = Some ts_lex_154" "ts_lex_switch 156 = Some ts_lex_156"
  "ts_lex_switch 72 = Some ts_lex_72" "ts_lex_switch 139 = Some ts_lex_139"
  unfolding ts_lex_switch_def length_ts_lex_table by (simp_all add: ts_lex_table_def)

context ts_lexer
begin

lemma word_state_159: "word_state L view 159 (\<lambda>_. sym_identifier)"
  unfolding word_state_def
proof (intro allI impI)
  fix l cs rest r
  assume inp: "t_input (view l) = cs @ rest" and cs: "list_all ident_rest cs" and "ends_word rest"
  then have stop: "\<not> ident_rest (case rest of [] \<Rightarrow> 0 | c # _ \<Rightarrow> c)"
    using not_ident_rest_0 by (auto simp: ends_word_def split: list.splits)
  have body: "ts_lex_159 e c = (Some sym_identifier, if ident_rest c then ADVANCE 159 else END_STATE)" for e c
    by (simp add: ts_lex_159_def in_set_2 ident_rest_def)
  show "\<exists>l'. lex_run L ts_lex_switch r 159 l = Some (True, l') \<and> t_symbol (view l') = sym_identifier \<and>
       t_end (view l') = Some (t_pos (view l) + length cs)"
    by (rule lex_run_stay [where cases = ts_lex_switch and s = 159 and body = ts_lex_159 and p = ident_rest])
      (use inp cs stop in \<open>auto simp: body list_all_iff ts_lex_switch_words\<close>)
qed

lemma word_state_edge:
  assumes "ts_lex_switch s = Some body"
    and "\<And>e c. body e c = (Some tok0, if c = x then ADVANCE s' else if ident_rest c then ADVANCE 159 else END_STATE)"
    and "word_state L view s' tok'" and "ident_rest x"
  shows "word_state L view s (\<lambda>cs. case cs of [] \<Rightarrow> tok0
    | c # cs' \<Rightarrow> if c = x then tok' cs' else sym_identifier)"
  unfolding word_state_def
proof (intro allI impI)
  fix l cs rest r
  assume inp: "t_input (view l) = cs @ rest" and cs: "list_all ident_rest cs" and rest: "ends_word rest"
  have x0: "x \<noteq> 0" using assms(4) not_ident_rest_0 by auto
  show "\<exists>l'. lex_run L ts_lex_switch r s l = Some (True, l') \<and> t_symbol (view l') =
       (case cs of [] \<Rightarrow> tok0 | c # cs' \<Rightarrow> if c = x then tok' cs' else sym_identifier) \<and>
       t_end (view l') = Some (t_pos (view l) + length cs)"
  proof (cases cs)
    case Nil
    then have "\<not> ident_rest (text_lookahead (view l))" "text_lookahead (view l) \<noteq> x"
      using inp rest not_ident_rest_0 x0 assms(4) by (cases rest; auto simp: ends_word_def)+
    then show ?thesis using Nil assms(1,2)
      by (subst lex_run.simps) (simp add: Let_def ACCEPT_TOKEN_def)
  next
    case (Cons c cs')
    let ?l1 = "lx_advance L (snd (ACCEPT_TOKEN L (Some tok0) (r, l))) False"
    let ?s = "if c = x then s' else 159"
    have la: "text_lookahead (view l) = c" and c: "ident_rest c" using inp cs Cons by simp_all
    have l1: "t_input (view ?l1) = cs' @ rest" "t_pos (view ?l1) = Suc (t_pos (view l))"
      using inp Cons by (simp_all add: view_ACCEPT_TOKEN t_pos_advance)
    have "lex_run L ts_lex_switch r s l = lex_run L ts_lex_switch True ?s ?l1"
      using la c assms(1,2) by (subst lex_run.simps) (simp add: Let_def ACCEPT_TOKEN_def)
    moreover have ws: "word_state L view ?s (if c = x then tok' else (\<lambda>_. sym_identifier))"
      using assms(3) word_state_159 by simp
    have "list_all ident_rest cs'" using cs Cons by simp
    from ws [unfolded word_state_def, rule_format, OF l1(1) this rest, of True]
    obtain l' where "lex_run L ts_lex_switch True ?s ?l1 = Some (True, l')"
      "t_symbol (view l') = (if c = x then tok' cs' else sym_identifier)"
      "t_end (view l') = Some (t_pos (view ?l1) + length cs')"
      by (cases "c = x") auto
    ultimately have "lex_run L ts_lex_switch r s l = Some (True, l')"
      "t_symbol (view l') = (if c = x then tok' cs' else sym_identifier)"
      "t_end (view l') = Some (t_pos (view ?l1) + length cs')" by simp_all
    with Cons l1(2) show ?thesis by simp
  qed
qed

lemma word_state_char:
  assumes "ts_lex_switch s = Some body"
    and "\<And>e c. body e c = (Some sym_identifier, if c = x then ADVANCE s' else if ident_rest c then ADVANCE 159 else END_STATE)"
    and "word_state L view s' (word_token k)" and "ident_rest x"
  shows "word_state L view s (word_token (x # k))"
proof -
  have "word_token (x # k) = (\<lambda>cs. case cs of [] \<Rightarrow> sym_identifier
      | c # cs' \<Rightarrow> if c = x then word_token k cs' else sym_identifier)"
    by (auto simp: word_token_def fun_eq_iff split: list.splits)
  then show ?thesis using word_state_edge [OF assms] by simp
qed

text \<open>The states along \<open>except\<close>.\<close>

lemma word_state_158: "word_state L view 158 (word_token (map of_char ''xcept''))"
proof -
  have rest: "ident_rest 97" "ident_rest 120" "ident_rest 99" "ident_rest 101" "ident_rest 112" "ident_rest 116"
    using except_chars_rest letter_a_rest by (simp_all add: in_set_2 ident_rest_def)
  note bodies = in_set_2 ident_rest_def [symmetric]
  have tok72: "word_token [] = (\<lambda>cs. case cs of [] \<Rightarrow> anon_sym_except
      | c # cs' \<Rightarrow> if c = 97 then sym_identifier else sym_identifier)"
    by (auto simp: word_token_def fun_eq_iff split: list.splits)
  have "word_state L view 72 (word_token [])" unfolding tok72
    by (rule word_state_edge [where body = ts_lex_72 and s' = 159])
      (simp_all add: ts_lex_switch_words ts_lex_72_def bodies rest word_state_159)
  then have "word_state L view 156 (word_token [116])"
    by (rule word_state_char [where body = ts_lex_156, rotated 2])
      (simp_all add: ts_lex_switch_words ts_lex_156_def bodies rest)
  then have "word_state L view 154 (word_token [112, 116])"
    by (rule word_state_char [where body = ts_lex_154, rotated 2])
      (simp_all add: ts_lex_switch_words ts_lex_154_def bodies rest)
  then have "word_state L view 152 (word_token [101, 112, 116])"
    by (rule word_state_char [where body = ts_lex_152, rotated 2])
      (simp_all add: ts_lex_switch_words ts_lex_152_def bodies rest)
  then have "word_state L view 150 (word_token [99, 101, 112, 116])"
    by (rule word_state_char [where body = ts_lex_150, rotated 2])
      (simp_all add: ts_lex_switch_words ts_lex_150_def bodies rest)
  then have "word_state L view 158 (word_token [120, 99, 101, 112, 116])"
    by (rule word_state_char [where body = ts_lex_158, rotated 2])
      (simp_all add: ts_lex_switch_words ts_lex_158_def bodies rest)
  then show ?thesis by simp
qed

end

section \<open>Starting states\<close>

text \<open>The lexical states in which an identifier may start and \<open>except*\<close> is no token.\<close>

definition word_start_states :: "nat list" where
  "word_start_states = [4, 5, 6, 9, 10, 12, 13, 53]"

lemma ident_first_range:
  "list_all (\<lambda>r. 65 \<le> range_start r) sym_identifier_character_set_1"
  unfolding sym_identifier_character_set_1_def char_ranges_def by simp

lemma not_ident_first:
  "list_all (Not \<circ> in_set sym_identifier_character_set_1 685)
     [91, 92, 93, 94, 123, 124, 125, 126, 0x200B, 0x2060, 0xFEFF]"
  unfolding list_all_iff comp_def in_set_1
  by (intro ballI misses_in_range [OF identifier_set_1_misses]) auto

lemma ident_first_facts:
  assumes "ident_first c"
  shows "65 \<le> c" "c \<notin> {91, 92, 93, 94, 123, 124, 125, 126, 0x200B, 0x2060, 0xFEFF}"
    "in_set sym_identifier_character_set_1 685 c"
proof -
  show in1: "in_set sym_identifier_character_set_1 685 c"
    using assms by (simp add: ident_first_def in_set_1)
  show "65 \<le> c" using assms ident_first_range
    by (auto simp: ident_first_def list_all_iff in_range_def intro: order_trans)
  show "c \<notin> {91, 92, 93, 94, 123, 124, 125, 126, 0x200B, 0x2060, 0xFEFF}"
    using in1 not_ident_first by auto
qed

lemma word_start_bodies:
  assumes "ident_first c" and "s \<in> set word_start_states"
  shows "\<exists>body. ts_lex_switch s = Some body \<and>
    body False c = (None, if c = ch CHR ''e'' then ADVANCE 158 else ADVANCE 159)"
proof -
  note f = ident_first_facts [OF assms(1)]
  have sw: "ts_lex_switch s = Some (ts_lex_table ! s)"
    using assms(2) by (auto simp: word_start_states_def ts_lex_switch_def length_ts_lex_table)
  have ne: "c \<noteq> k" if "k < 65" for k using f(1) that by simp
  have "ts_lex_table ! s \<in> {ts_lex_4, ts_lex_5, ts_lex_6, ts_lex_9, ts_lex_10, ts_lex_12, ts_lex_13, ts_lex_53}"
    using assms(2) by (auto simp: word_start_states_def ts_lex_table_def)
  then have "(ts_lex_table ! s) False c = (None, if c = ch CHR ''e'' then ADVANCE 158 else ADVANCE 159)"
    using f
    by (elim insertE emptyE;
        simp add: ne ts_lex_4_def ts_lex_5_def ts_lex_6_def ts_lex_9_def ts_lex_10_def
          ts_lex_12_def ts_lex_13_def ts_lex_53_def)
  with sw show ?thesis by blast
qed

definition number_start_states :: "nat list" where
  "number_start_states = [0, 4, 5, 6, 12, 13, 52, 53, 54]"

lemma number_start_bodies:
  assumes "49 \<le> c" "c \<le> 57" and "s \<in> set number_start_states"
  shows "\<exists>body. ts_lex_switch s = Some body \<and> body False c = (None, ADVANCE 139)"
proof -
  have sw: "ts_lex_switch s = Some (ts_lex_table ! s)"
    using assms(3) by (auto simp: number_start_states_def ts_lex_switch_def length_ts_lex_table)
  have ne: "c \<noteq> k" if "k < 49 \<or> 57 < k" for k using assms(1,2) that by auto
  have "ts_lex_table ! s \<in> {ts_lex_0, ts_lex_4, ts_lex_5, ts_lex_6, ts_lex_12, ts_lex_13,
      ts_lex_52, ts_lex_53, ts_lex_54}"
    using assms(3) by (auto simp: number_start_states_def ts_lex_table_def)
  then have "(ts_lex_table ! s) False c = (None, ADVANCE 139)"
    using assms(1,2)
    by (elim insertE emptyE;
        simp add: ne ts_lex_0_def ts_lex_4_def ts_lex_5_def ts_lex_6_def ts_lex_12_def
          ts_lex_13_def ts_lex_52_def ts_lex_53_def ts_lex_54_def)
  with sw show ?thesis by blast
qed

end
