(* ===== verification/Mojo_Lex_Properties.thy ===== *)
theory Mojo_Lex_Properties
  imports Mojo_Lex_Proofs
begin

text \<open>
  The properties of the two generated lexer functions, on every lexer that meets the contract.
  Keyword and operator lists are spelled out in \<open>Mojo_Lex_Proofs\<close>, and the lexical states in which an
  identifier may start in \<open>word_start_states\<close> there and in \<open>plain_word_states\<close> and \<open>star_word_states\<close> here.
\<close>

section \<open>Termination\<close>

text \<open>C19: Both generated lexer functions return on every input and from every state number, also
  one that has no case: although the jumps between cases are bounded by nothing, every cycle
  consumes a character and every case stops at the end of the input.\<close>

theorem lex_functions_return:
  assumes "ts_lexer L view"
  shows "ts_lex L l state \<noteq> None \<and> ts_lex_keywords L l state \<noteq> None"
  unfolding ts_lex_def ts_lex_keywords_def lex_start_def
  using ts_lexer.lex_run_terminates [OF assms ts_lex_stops]
    ts_lexer.lex_run_terminates [OF assms ts_lex_keywords_stops] by simp

lemma lex_functions_return_witness:
  "ts_lex text_ops (text_of [46, 46]) 0 \<noteq> None \<and> ts_lex_keywords text_ops (text_of [46, 46]) 0 \<noteq> None"
  by (rule lex_functions_return [OF text_lexer.ts_lexer_axioms])

section \<open>Keywords\<close>

definition lexer_blank :: "int \<Rightarrow> bool" where
  "lexer_blank c \<longleftrightarrow> (9 \<le> c \<and> c \<le> 13) \<or> c \<in> {32, 0x200B, 0x2060, 0xFEFF}"

definition keyword_words_list :: "(int list \<times> nat) list" where
  "keyword_words_list = char_words keyword_list"

lemma ts_lex_keywords_0: "ts_lex_keywords_switch 0 = Some ts_lex_keywords_0"
  unfolding ts_lex_keywords_switch_def length_ts_lex_keywords_table
  by (simp add: ts_lex_keywords_table_def)

lemma keywords_0_blank: "lexer_blank c \<Longrightarrow> ts_lex_keywords_0 eof c = (None, SKIP 0)"
  by (auto simp: lexer_blank_def ts_lex_keywords_0_def)

lemma keywords_0_word:
  "\<not> lexer_blank c \<Longrightarrow> ts_lex_keywords_0 eof c = (None, edge_action (char_edges keyword_first) c)"
proof -
  assume c: "\<not> lexer_blank c"
  then have "\<not> (9 \<le> c \<and> c \<le> 12)" "c \<noteq> 13" "c \<notin> {32, 0x200B, 0x2060, 0xFEFF}"
    by (auto simp: lexer_blank_def)
  then show ?thesis by (simp add: ts_lex_keywords_0_def keyword_first_def char_edges_def)
qed

lemma keyword_lex_run:
  assumes L: "ts_lexer L view" and inp: "t_input (view l) = ws @ cs" and ws: "\<forall>c \<in> set ws. lexer_blank c"
    and cs: "cs = [] \<or> \<not> lexer_blank (hd cs)"
  shows "\<exists>r l'. ts_lex_keywords L l 0 = Some (r, l') \<and>
    (if no_word keyword_words_list cs then \<not> r
     else r \<and> (\<exists>w t. longest_word keyword_words_list cs w t \<and> t_symbol (view l') = t \<and>
       t_end (view l') = Some (t_pos (view l) + length ws + length w)))"
proof -
  note lx = ts_lexer.lookahead [OF L] ts_lexer.advance [OF L]
  have "\<exists>l1. lex_run L ts_lex_keywords_switch False 0 l = lex_run L ts_lex_keywords_switch False 0 l1 \<and>
      view l1 = text_advances (length ws) True (view l)"
    using inp ws
  proof (induction ws arbitrary: l)
    case Nil
    show ?case by (rule exI [of _ l]) simp
  next
    case (Cons c ws)
    let ?m = "lx_advance L l True"
    have "lex_run L ts_lex_keywords_switch False 0 l = lex_run L ts_lex_keywords_switch False 0 ?m"
      using Cons.prems
      by (subst lex_run.simps) (simp add: ts_lex_keywords_0 keywords_0_blank lx ACCEPT_TOKEN_def)
    with Cons.IH [of ?m] Cons.prems show ?case by (auto simp: lx)
  qed
  then obtain l1 where skip: "lex_run L ts_lex_keywords_switch False 0 l =
      lex_run L ts_lex_keywords_switch False 0 l1"
    and v: "view l1 = text_advances (length ws) True (view l)" by blast
  have l1: "t_input (view l1) = cs" "t_pos (view l1) = t_pos (view l) + length ws"
    using v inp by (simp_all add: t_pos_advances)
  have "\<not> lexer_blank (text_lookahead (view l1))"
    using cs l1(1) by (cases cs) (auto simp: lexer_blank_def)
  from keywords_0_word [OF this]
  obtain r l' where "lex_run L ts_lex_keywords_switch False 0 l1 = Some (r, l')"
    "trie_result (edge_words keyword_trie 20 (char_edges keyword_first)) False (view l1) r (view l')"
    using ts_lexer.lex_run_trie_from [OF L keyword_runs_trie keyword_first_ok keyword_first_closed
        ts_lex_keywords_0] by blast
  then show ?thesis using skip l1
    by (auto simp: ts_lex_keywords_def lex_start_def trie_result_def keyword_words
        keyword_words_list_def split: if_splits)
qed

text \<open>C16: From its start state the keyword lexer skips white space and then takes the longest
  keyword that is a prefix of the remaining input: it stores that keyword's symbol and the
  token ends after the keyword. Without such a keyword it returns false.\<close>

theorem keyword_longest_match:
  assumes L: "ts_lexer L view" and inp: "t_input (view l) = ws @ cs" and ws: "\<forall>c \<in> set ws. lexer_blank c"
    and cs: "cs = [] \<or> \<not> lexer_blank (hd cs)"
  shows "\<exists>r l'. ts_lex_keywords L l 0 = Some (r, l') \<and>
    (if no_word keyword_words_list cs then \<not> r
     else r \<and> (\<exists>w t. longest_word keyword_words_list cs w t \<and> t_symbol (view l') = t \<and>
       t_end (view l') = Some (t_pos (view l) + length ws + length w)))"
  by (rule keyword_lex_run [OF assms])

lemma keyword_longest_match_witness:
  "\<exists>r l'. ts_lex_keywords text_ops (text_of (32 # map of_char ''fn(x)'')) 0 = Some (r, l') \<and>
    (if no_word keyword_words_list (map of_char ''fn(x)'') then \<not> r
     else r \<and> (\<exists>w t. longest_word keyword_words_list (map of_char ''fn(x)'') w t \<and>
       t_symbol (id l') = t \<and> t_end (id l') = Some (t_pos (id (text_of (32 # map of_char ''fn(x)''))) +
         length [32 :: int] + length w)))"
  by (rule keyword_longest_match [OF text_lexer.ts_lexer_axioms])
    (simp_all add: text_of_def lexer_blank_def)

section \<open>Operators\<close>

lemma operator_lex_run:
  assumes L: "ts_lexer L view" and state: "state = 0 \<or> state = 52"
    and inp: "t_input (view l) = c # cs" and c: "c \<in> fst ` set (char_edges operator_first)"
  shows "\<exists>l' w t. ts_lex L l state = Some (True, l') \<and>
    longest_word (char_words operator_list) (c # cs) w t \<and> t_symbol (view l') = t \<and>
    t_end (view l') = Some (t_pos (view l) + length w)"
proof -
  have eof: "lx_eof L l = False" "text_lookahead (view l) = c"
    using inp by (simp_all add: ts_lexer.eof [OF L] text_eof_def)
  obtain body where body: "ts_lex_switch state = Some body"
    "body (lx_eof L l) (text_lookahead (view l)) = (None, edge_action (char_edges operator_first) (text_lookahead (view l)))"
  proof -
    have "ts_lex_switch 0 = Some ts_lex_0" "ts_lex_switch 52 = Some ts_lex_52"
      unfolding ts_lex_switch_def length_ts_lex_table by (simp_all add: ts_lex_table_def)
    with that state operator_first_step [of c] c eof show ?thesis by auto
  qed
  obtain r l' where run: "lex_run L ts_lex_switch False state l = Some (r, l')"
    "trie_result (char_words operator_list) False (view l) r (view l')"
    using ts_lexer.lex_run_trie_from [OF L operator_runs_trie operator_first_ok operator_first_closed body, of False]
    by (auto simp: operator_words)
  have "\<exists>t. ([c], t) \<in> set (char_words operator_list)"
    using c unfolding operator_first_def char_edges_def list.map prod.case list.set image_insert image_empty
      insert_iff empty_iff fst_conv
    by (elim disjE; simp add: char_words_def operator_list_def; blast)
  then have "\<not> no_word (char_words operator_list) (c # cs)" by (auto simp: no_word_def)
  with run inp show ?thesis by (auto simp: ts_lex_def lex_start_def trie_result_def)
qed

text \<open>C17: In the states 0 and 52, an input that starts with the first character of an operator or
  bracket is scanned as the longest operator of the list that is a prefix of it.\<close>

theorem operator_longest_match:
  assumes L: "ts_lexer L view" and state: "state = 0 \<or> state = 52"
    and inp: "t_input (view l) = c # cs" and c: "c \<in> fst ` set (char_edges operator_first)"
  shows "\<exists>l' w t. ts_lex L l state = Some (True, l') \<and>
    longest_word (char_words operator_list) (c # cs) w t \<and> t_symbol (view l') = t \<and>
    t_end (view l') = Some (t_pos (view l) + length w)"
  by (rule operator_lex_run [OF assms])

lemma operator_longest_match_witness:
  "\<exists>l' w t. ts_lex text_ops (text_of [62, 62, 61, 49]) 0 = Some (True, l') \<and>
    longest_word (char_words operator_list) [62, 62, 61, 49] w t \<and> t_symbol (id l') = t \<and>
    t_end (id l') = Some (t_pos (id (text_of [62, 62, 61, 49])) + length w)"
  by (rule operator_longest_match [OF text_lexer.ts_lexer_axioms])
    (simp_all add: text_of_def operator_first_def char_edges_def)

section \<open>Identifiers and numbers\<close>

lemma identifier_lex_run:
  assumes L: "ts_lexer L view" and s: "state \<in> set word_start_states"
    and inp: "t_input (view l) = c # cs @ rest" and c: "ident_first c"
    and cs: "list_all ident_rest cs" and stop: "ends_word rest"
  shows "\<exists>l'. ts_lex L l state = Some (True, l') \<and>
    t_symbol (view l') = (if c # cs = map of_char ''except'' then anon_sym_except else sym_identifier) \<and>
    t_end (view l') = Some (t_pos (view l) + 1 + length cs)"
proof -
  note lx = ts_lexer.lookahead [OF L] ts_lexer.advance [OF L] ts_lexer.eof [OF L]
  obtain body where body: "ts_lex_switch state = Some body"
    "body False c = (None, if c = ch CHR ''e'' then ADVANCE 158 else ADVANCE 159)"
    using word_start_bodies [OF c s] by blast
  let ?l1 = "lx_advance L l False" and ?s = "if c = ch CHR ''e'' then 158 else 159"
  have "ts_lex L l state = lex_run L ts_lex_switch False ?s ?l1"
    unfolding ts_lex_def lex_start_def using body inp
    by (subst lex_run.simps) (simp add: lx text_eof_def Let_def ACCEPT_TOKEN_def)
  moreover have ws: "word_state L view ?s (if c = ch CHR ''e'' then word_token (map of_char ''xcept'') else (\<lambda>_. sym_identifier))"
    using ts_lexer.word_state_158 [OF L] ts_lexer.word_state_159 [OF L] by simp
  moreover have "t_input (view ?l1) = cs @ rest" "t_pos (view ?l1) = t_pos (view l) + 1"
    using inp by (simp_all add: lx t_pos_advance)
  moreover note ws [unfolded word_state_def, rule_format, OF _ cs stop, of ?l1 False]
  ultimately show ?thesis
    by (cases "c = ch CHR ''e''") (auto simp: word_token_def)
qed

text \<open>The other lexical states in which an identifier may start: in \<open>plain_word_states\<close> the keyword
  \<open>except\<close> is no token, in \<open>star_word_states\<close> the token \<open>except*\<close> is one as well.\<close>

definition plain_word_states :: "nat list" where
  "plain_word_states = [7, 8, 14, 15]"

definition star_word_states :: "nat list" where
  "star_word_states = [0, 52, 54]"

lemma plain_word_bodies:
  assumes "ident_first c" and "s \<in> set plain_word_states"
  shows "\<exists>body. ts_lex_switch s = Some body \<and> body False c = (None, ADVANCE 159)"
proof -
  note f = ident_first_facts [OF assms(1)]
  have sw: "ts_lex_switch s = Some (ts_lex_table ! s)"
    using assms(2) by (auto simp: plain_word_states_def ts_lex_switch_def length_ts_lex_table)
  have ne: "c \<noteq> k" if "k < 65" for k using f(1) that by simp
  have "ts_lex_table ! s \<in> {ts_lex_7, ts_lex_8, ts_lex_14, ts_lex_15}"
    using assms(2) by (auto simp: plain_word_states_def ts_lex_table_def)
  then have "(ts_lex_table ! s) False c = (None, ADVANCE 159)"
    using f by (elim insertE emptyE;
        simp add: ne ts_lex_7_def ts_lex_8_def ts_lex_14_def ts_lex_15_def)
  with sw show ?thesis by blast
qed

lemma star_word_bodies:
  assumes "ident_first c" and "s \<in> set star_word_states"
  shows "\<exists>body. ts_lex_switch s = Some body \<and>
    body False c = (None, if c = ch CHR ''e'' then ADVANCE 157 else ADVANCE 159)"
proof -
  note f = ident_first_facts [OF assms(1)]
  have sw: "ts_lex_switch s = Some (ts_lex_table ! s)"
    using assms(2) by (auto simp: star_word_states_def ts_lex_switch_def length_ts_lex_table)
  have ne: "c \<noteq> k" if "k < 65" for k using f(1) that by simp
  have "ts_lex_table ! s \<in> {ts_lex_0, ts_lex_52, ts_lex_54}"
    using assms(2) by (auto simp: star_word_states_def ts_lex_table_def)
  then have "(ts_lex_table ! s) False c = (None, if c = ch CHR ''e'' then ADVANCE 157 else ADVANCE 159)"
    using f by (elim insertE emptyE; simp add: ne ts_lex_0_def ts_lex_52_def ts_lex_54_def)
  with sw show ?thesis by blast
qed

text \<open>
  \<open>star_state s k\<close>: in state \<open>s\<close> the rest of a word is consumed, and where it is \<open>k\<close>, the word is \<open>except\<close>
  and a star after it belongs to the token.
\<close>

definition starred :: "int list \<Rightarrow> bool" where
  "starred rest \<longleftrightarrow> rest \<noteq> [] \<and> hd rest = ch CHR ''*''"

definition star_token :: "int list \<Rightarrow> int list \<Rightarrow> int list \<Rightarrow> nat" where
  "star_token k cs rest = (if cs \<noteq> k then sym_identifier
     else if starred rest then anon_sym_except_STAR else anon_sym_except)"

definition star_state ::
    "'l lexer_ops \<Rightarrow> ('l \<Rightarrow> source_text) \<Rightarrow> nat \<Rightarrow> int list \<Rightarrow> bool" where
  "star_state L view s k \<longleftrightarrow> (\<forall>l cs rest r. t_input (view l) = cs @ rest \<longrightarrow>
     list_all ident_rest cs \<longrightarrow> ends_word rest \<longrightarrow>
     (\<exists>l'. lex_run L ts_lex_switch r s l = Some (True, l') \<and> t_symbol (view l') = star_token k cs rest \<and>
       t_end (view l') = Some (t_pos (view l) + length cs + (if cs = k \<and> starred rest then 1 else 0))))"

lemma not_ident_rest_star: "\<not> ident_rest (ch CHR ''*'')"
proof -
  have "\<not> in_set sym_identifier_character_set_2 800 42" by code_simp
  then show ?thesis by (simp add: ident_rest_def in_set_2)
qed

lemma ts_lex_switch_star:
  "ts_lex_switch 157 = Some ts_lex_157" "ts_lex_switch 149 = Some ts_lex_149"
  "ts_lex_switch 151 = Some ts_lex_151" "ts_lex_switch 153 = Some ts_lex_153"
  "ts_lex_switch 155 = Some ts_lex_155" "ts_lex_switch 71 = Some ts_lex_71"
  "ts_lex_switch 84 = Some ts_lex_84"
  unfolding ts_lex_switch_def length_ts_lex_table by (simp_all add: ts_lex_table_def)

context ts_lexer
begin

lemma identifier_rest_run:
  assumes "t_input (view l) = cs @ rest" "list_all ident_rest cs" "ends_word rest"
  shows "\<exists>l'. lex_run L ts_lex_switch r 159 l = Some (True, l') \<and> t_symbol (view l') = sym_identifier \<and>
    t_end (view l') = Some (t_pos (view l) + length cs)"
  using word_state_159 [unfolded word_state_def, rule_format, OF assms] .

lemma star_state_char:
  assumes "ts_lex_switch s = Some body"
    and "\<And>e c. body e c = (Some sym_identifier, if c = x then ADVANCE s' else if ident_rest c then ADVANCE 159 else END_STATE)"
    and "star_state L view s' k" and "ident_rest x"
  shows "star_state L view s (x # k)"
  unfolding star_state_def
proof (intro allI impI)
  fix l cs rest r
  assume inp: "t_input (view l) = cs @ rest" and cs: "list_all ident_rest cs" and rest: "ends_word rest"
  have x0: "x \<noteq> 0" using assms(4) not_ident_rest_0 by auto
  show "\<exists>l'. lex_run L ts_lex_switch r s l = Some (True, l') \<and> t_symbol (view l') = star_token (x # k) cs rest \<and>
       t_end (view l') = Some (t_pos (view l) + length cs + (if cs = x # k \<and> starred rest then 1 else 0))"
  proof (cases cs)
    case Nil
    then have "\<not> ident_rest (text_lookahead (view l))" "text_lookahead (view l) \<noteq> x"
      using inp rest not_ident_rest_0 x0 assms(4) by (cases rest; auto simp: ends_word_def)+
    then show ?thesis using Nil assms(1,2)
      by (subst lex_run.simps) (simp add: Let_def ACCEPT_TOKEN_def star_token_def)
  next
    case (Cons c cs')
    let ?l1 = "lx_advance L (snd (ACCEPT_TOKEN L (Some sym_identifier) (r, l))) False"
    have la: "text_lookahead (view l) = c" and c: "ident_rest c" and cs': "list_all ident_rest cs'"
      using inp cs Cons by simp_all
    have l1: "t_input (view ?l1) = cs' @ rest" "t_pos (view ?l1) = Suc (t_pos (view l))"
      using inp Cons by (simp_all add: view_ACCEPT_TOKEN t_pos_advance)
    have run: "lex_run L ts_lex_switch r s l = lex_run L ts_lex_switch True (if c = x then s' else 159) ?l1"
      using la c assms(1,2) by (subst lex_run.simps) (simp add: Let_def ACCEPT_TOKEN_def)
    show ?thesis
    proof (cases "c = x")
      case True
      from assms(3) [unfolded star_state_def, rule_format, OF l1(1) cs' rest, of True]
      show ?thesis unfolding run using True Cons l1(2) by (auto simp: star_token_def)
    next
      case False
      from identifier_rest_run [OF l1(1) cs' rest, of True]
      show ?thesis unfolding run using False Cons l1(2) by (auto simp: star_token_def)
    qed
  qed
qed

lemma star_state_71: "star_state L view 71 []"
  unfolding star_state_def
proof (intro allI impI)
  fix l cs rest r
  assume inp: "t_input (view l) = cs @ rest" and cs: "list_all ident_rest cs" and rest: "ends_word rest"
  have body: "ts_lex_71 e c = (Some anon_sym_except, if c = ch CHR ''*'' then ADVANCE 84
      else if ident_rest c then ADVANCE 159 else END_STATE)" for e c
    by (simp add: ts_lex_71_def in_set_2 ident_rest_def)
  let ?l1 = "lx_advance L (snd (ACCEPT_TOKEN L (Some anon_sym_except) (r, l))) False"
  show "\<exists>l'. lex_run L ts_lex_switch r 71 l = Some (True, l') \<and> t_symbol (view l') = star_token [] cs rest \<and>
       t_end (view l') = Some (t_pos (view l) + length cs + (if cs = [] \<and> starred rest then 1 else 0))"
  proof (cases cs)
    case Nil
    show ?thesis
    proof (cases "starred rest")
      case True
      then have la: "text_lookahead (view l) = ch CHR ''*''" and l1: "t_pos (view ?l1) = Suc (t_pos (view l))"
        using inp Nil by (cases rest; simp add: starred_def view_ACCEPT_TOKEN t_pos_advance)+
      have run: "lex_run L ts_lex_switch r 71 l = lex_run L ts_lex_switch True 84 ?l1"
        using la by (subst lex_run.simps) (simp add: Let_def ACCEPT_TOKEN_def ts_lex_switch_star body)
      show ?thesis unfolding run
        by (subst lex_run.simps)
          (simp add: Let_def ACCEPT_TOKEN_def ts_lex_switch_star ts_lex_84_def Nil True star_token_def
            l1 [unfolded ACCEPT_TOKEN_def, simplified])
    next
      case False
      then have "\<not> ident_rest (text_lookahead (view l))" "text_lookahead (view l) \<noteq> ch CHR ''*''"
        using inp rest not_ident_rest_0 Nil by (cases rest; auto simp: ends_word_def starred_def)+
      then show ?thesis using Nil False
        by (subst lex_run.simps)
          (simp add: Let_def ACCEPT_TOKEN_def ts_lex_switch_star body star_token_def)
    qed
  next
    case (Cons c cs')
    have la: "text_lookahead (view l) = c" and c: "ident_rest c" and cs': "list_all ident_rest cs'"
      using inp cs Cons by simp_all
    have "c \<noteq> ch CHR ''*''" using c not_ident_rest_star by auto
    then have run: "lex_run L ts_lex_switch r 71 l = lex_run L ts_lex_switch True 159 ?l1"
      using la c by (subst lex_run.simps) (simp add: Let_def ACCEPT_TOKEN_def ts_lex_switch_star body)
    have l1: "t_input (view ?l1) = cs' @ rest" "t_pos (view ?l1) = Suc (t_pos (view l))"
      using inp Cons by (simp_all add: view_ACCEPT_TOKEN t_pos_advance)
    from identifier_rest_run [OF l1(1) cs' rest, of True]
    show ?thesis unfolding run using Cons l1(2) by (auto simp: star_token_def)
  qed
qed

lemma star_state_157: "star_state L view 157 (map of_char ''xcept'')"
proof -
  have rest: "ident_rest 120" "ident_rest 99" "ident_rest 101" "ident_rest 112" "ident_rest 116"
    using except_chars_rest by (simp_all add: in_set_2 ident_rest_def)
  note bodies = in_set_2 ident_rest_def [symmetric]
  note star_state_71
  then have "star_state L view 155 [116]"
    by (rule star_state_char [where body = ts_lex_155, rotated 2])
      (simp_all add: ts_lex_switch_star ts_lex_155_def bodies rest)
  then have "star_state L view 153 [112, 116]"
    by (rule star_state_char [where body = ts_lex_153, rotated 2])
      (simp_all add: ts_lex_switch_star ts_lex_153_def bodies rest)
  then have "star_state L view 151 [101, 112, 116]"
    by (rule star_state_char [where body = ts_lex_151, rotated 2])
      (simp_all add: ts_lex_switch_star ts_lex_151_def bodies rest)
  then have "star_state L view 149 [99, 101, 112, 116]"
    by (rule star_state_char [where body = ts_lex_149, rotated 2])
      (simp_all add: ts_lex_switch_star ts_lex_149_def bodies rest)
  then have "star_state L view 157 [120, 99, 101, 112, 116]"
    by (rule star_state_char [where body = ts_lex_157, rotated 2])
      (simp_all add: ts_lex_switch_star ts_lex_157_def bodies rest)
  then show ?thesis by simp
qed

end

text \<open>The first character of a word in any of these states.\<close>

lemma word_first_step:
  assumes L: "ts_lexer L view" and "t_input (view l) = c # cs"
    and "ts_lex_switch s = Some body" "body False c = (None, ADVANCE s')"
  shows "ts_lex L l s = lex_run L ts_lex_switch False s' (lx_advance L l False) \<and>
    t_input (view (lx_advance L l False)) = cs \<and> t_pos (view (lx_advance L l False)) = t_pos (view l) + 1"
proof -
  note lx = ts_lexer.lookahead [OF L] ts_lexer.advance [OF L] ts_lexer.eof [OF L]
  have "ts_lex L l s = lex_run L ts_lex_switch False s' (lx_advance L l False)"
    unfolding ts_lex_def lex_start_def using assms(2-4)
    by (subst lex_run.simps) (simp add: lx text_eof_def Let_def ACCEPT_TOKEN_def)
  then show ?thesis using assms(2) by (simp add: lx t_pos_advance)
qed

text \<open>C18: In every lexical state in which an identifier may start, an identifier character followed by
  continuation characters is one token up to the last of them, and an identifier unless the word is
  \<open>except\<close>. That word is an identifier in the states 7, 8, 14 and 15, the keyword \<open>except\<close> in the others,
  and in the states 0, 52 and 54 a star after it makes it the token \<open>except*\<close>. These are all states in
  which the parser starts \<open>ts_lex\<close>, but for state 3, that of format specifiers (\<open>identifier_start_modes\<close>).\<close>

theorem identifier_longest_match:
  assumes L: "ts_lexer L view"
    and s: "state \<in> set (word_start_states @ plain_word_states @ star_word_states)"
    and inp: "t_input (view l) = c # cs @ rest" and c: "ident_first c"
    and cs: "list_all ident_rest cs" and stop: "ends_word rest"
  shows "\<exists>l'. ts_lex L l state = Some (True, l') \<and>
    (let keyword = c # cs = map of_char ''except'' \<and> state \<notin> set plain_word_states;
         star = keyword \<and> state \<in> set star_word_states \<and> starred rest
     in t_symbol (view l') = (if star then anon_sym_except_STAR else if keyword then anon_sym_except
          else sym_identifier) \<and>
        t_end (view l') = Some (t_pos (view l) + 1 + length cs + (if star then 1 else 0)))"
proof -
  have disj: "set word_start_states \<inter> (set plain_word_states \<union> set star_word_states) = {}"
    "set plain_word_states \<inter> set star_word_states = {}"
    by (simp_all add: word_start_states_def plain_word_states_def star_word_states_def)
  let ?l1 = "lx_advance L l False"
  from s consider "state \<in> set word_start_states" | "state \<in> set plain_word_states"
    | "state \<in> set star_word_states" by auto
  then show ?thesis
  proof cases
    case 1
    then have "state \<notin> set plain_word_states" "state \<notin> set star_word_states" using disj by blast+
    with identifier_lex_run [OF L 1 inp c cs stop] show ?thesis by simp
  next
    case 2
    from plain_word_bodies [OF c 2] obtain body where
      "ts_lex_switch state = Some body" "body False c = (None, ADVANCE 159)" by blast
    note step = word_first_step [OF L inp this]
    from ts_lexer.identifier_rest_run [OF L conjunct1 [OF conjunct2 [OF step]] cs stop, of False]
    show ?thesis using step 2 by auto
  next
    case 3
    then have np: "state \<notin> set plain_word_states" using disj by blast
    let ?s = "if c = ch CHR ''e'' then 157 else 159"
    from star_word_bodies [OF c 3] obtain body where
      "ts_lex_switch state = Some body" "body False c = (None, ADVANCE ?s)" by auto
    note step = word_first_step [OF L inp this]
    note in1 = conjunct1 [OF conjunct2 [OF step]]
    show ?thesis
    proof (cases "c = ch CHR ''e''")
      case True
      from ts_lexer.star_state_157 [OF L, unfolded star_state_def, rule_format, OF in1 cs stop, of False]
      show ?thesis using step True np 3 by (auto simp: star_token_def)
    next
      case False
      from ts_lexer.identifier_rest_run [OF L in1 cs stop, of False]
      show ?thesis using step False by auto
    qed
  qed
qed

lemma in_identifier_sets_x:
  "in_set sym_identifier_character_set_1 685 120" "in_set sym_identifier_character_set_2 800 49"
  "\<not> in_set sym_identifier_character_set_2 800 61" "in_set sym_identifier_character_set_1 685 101"
  by code_simp+

lemma identifier_longest_match_witness:
  "(\<exists>l'. ts_lex text_ops (text_of [120, 49, 61]) 53 = Some (True, l') \<and>
      t_symbol l' = sym_identifier \<and> t_end l' = Some 2) \<and>
   (\<exists>l'. ts_lex text_ops (text_of (map of_char ''except*'')) 54 = Some (True, l') \<and>
      t_symbol l' = anon_sym_except_STAR \<and> t_end l' = Some 7)"
proof
  note states = word_start_states_def plain_word_states_def star_word_states_def
  show "\<exists>l'. ts_lex text_ops (text_of [120, 49, 61]) 53 = Some (True, l') \<and>
      t_symbol l' = sym_identifier \<and> t_end l' = Some 2"
    using identifier_longest_match [OF text_lexer.ts_lexer_axioms, of 53 "text_of [120, 49, 61]" 120 "[49]" "[61]"]
      in_identifier_sets_x
    by (simp add: text_of_def states ident_first_def ident_rest_def in_set_1 in_set_2
        ends_word_def numeral_2_eq_2 Let_def)
  have "list_all ident_rest (map of_char ''xcept'')" "ident_first 101"
    using except_chars_rest in_identifier_sets_x(4) by (simp_all add: in_set_2 in_set_1 ident_rest_def ident_first_def)
  moreover have seven: "(7 :: nat) = Suc (Suc (Suc (Suc (Suc (Suc (Suc 0))))))" by simp
  ultimately show "\<exists>l'. ts_lex text_ops (text_of (map of_char ''except*'')) 54 = Some (True, l') \<and>
      t_symbol l' = anon_sym_except_STAR \<and> t_end l' = Some 7"
    unfolding seven
    using identifier_longest_match [OF text_lexer.ts_lexer_axioms, of 54 "text_of (map of_char ''except*'')" 101
        "map of_char ''xcept''" "[42]"] not_ident_rest_star
    by (simp add: text_of_def states ends_word_def starred_def)
qed

text \<open>In a lexical state where a number may start, a decimal literal without leading zero that
  is not followed by a digit, a point, an underscore, an exponent or a suffix letter is one
  \<open>sym_integer\<close> token of exactly its digits.\<close>

lemma decimal_integer_token:
  assumes L: "ts_lexer L view" and s: "state \<in> set number_start_states"
    and inp: "t_input (view l) = d # ds @ rest" and d: "49 \<le> d" "d \<le> 57"
    and ds: "\<forall>c \<in> set ds. 48 \<le> c \<and> c \<le> 57"
    and stop: "rest = [] \<or> \<not> (48 \<le> hd rest \<and> hd rest \<le> 57) \<and>
      hd rest \<notin> of_char ` set ''._EeJLjl''"
  shows "\<exists>l'. ts_lex L l state = Some (True, l') \<and> t_symbol (view l') = sym_integer \<and>
    t_end (view l') = Some (t_pos (view l) + 1 + length ds)"
proof -
  note lx = ts_lexer.lookahead [OF L] ts_lexer.advance [OF L] ts_lexer.eof [OF L]
  obtain body where body: "ts_lex_switch state = Some body" "body False d = (None, ADVANCE 139)"
    using number_start_bodies [OF d s] by blast
  let ?l1 = "lx_advance L l False"
  have step: "ts_lex L l state = lex_run L ts_lex_switch False 139 ?l1"
    unfolding ts_lex_def lex_start_def using body inp
    by (subst lex_run.simps) (simp add: lx text_eof_def Let_def ACCEPT_TOKEN_def)
  have l1: "t_input (view ?l1) = ds @ rest" "t_pos (view ?l1) = t_pos (view l) + 1"
    using inp by (simp_all add: lx t_pos_advance)
  have digit: "ts_lex_139 e c = (Some sym_integer, ADVANCE 139)" if "48 \<le> c \<and> c \<le> 57" for e c
    using that by (auto simp: ts_lex_139_def ADVANCE_MAP_def)
  have "\<not> (48 \<le> (0 :: int) \<and> (0 :: int) \<le> 57)" by simp
  with stop have "ts_lex_139 e (case rest of [] \<Rightarrow> 0 | c # _ \<Rightarrow> c) = (Some sym_integer, END_STATE)" for e
    by (cases rest) (auto simp: ts_lex_139_def ADVANCE_MAP_def)
  from ts_lexer.lex_run_stay [where cases = ts_lex_switch and s = 139 and body = ts_lex_139
      and p = "\<lambda>c. 48 \<le> c \<and> c \<le> 57", OF L ts_lex_switch_words(8) digit this l1(1) ds, of False]
  show ?thesis using step l1(2) by auto
qed

section \<open>The identifier tables\<close>

text \<open>The two identifier tables are sorted and disjoint and have the lengths the lexer passes
  to \<open>set_contains\<close>, so each test in the lexer reads inside its table and is exactly membership
  in it.\<close>

lemma identifier_tables:
  "ranges_ok sym_identifier_character_set_1 \<and> ranges_ok sym_identifier_character_set_2 \<and>
   set_contains sym_identifier_character_set_1 685 c = Some (ident_first c) \<and>
   set_contains sym_identifier_character_set_2 800 c = Some (ident_rest c)"
proof -
  have "set_contains sym_identifier_character_set_1 685 c = Some (ident_first c)"
    "set_contains sym_identifier_character_set_2 800 c = Some (ident_rest c)"
    unfolding ident_first_def ident_rest_def length_identifier_sets [symmetric]
    by (rule set_contains_correct; use identifier_set_1_ok identifier_set_2_ok length_identifier_sets in auto)+
  then show ?thesis using identifier_set_1_ok identifier_set_2_ok by simp
qed

end
