(* ===== verification/C_Arrays.thy ===== *)
theory C_Arrays
  imports Prelude
begin

text \<open>
  Array initialisers of C with designators, as the generated tables of
  \<^verbatim>\<open>grammars/tree-sitter-mojo/src/parser.c\<close> use them, and the arrays they build. A table is either a
  list of single elements \<open>[i] = x\<close> in an array of a fixed size, or a list of runs \<open>[i] = x, y, ...\<close>, in
  which the elements after a designated one take the next indices and the largest index gives
  the size.
\<close>

section \<open>Initialisers\<close>

text \<open>The array starts as \<open>n\<close> default values; the elements are stored in order, so that a later one
  replaces an earlier one at the same index.\<close>

definition store_all :: "'a list \<Rightarrow> (nat \<times> 'a) list \<Rightarrow> 'a list" where
  "store_all = foldl (\<lambda>xs (i, x). xs[i := x])"

definition designated :: "'a \<Rightarrow> nat \<Rightarrow> (nat \<times> 'a) list \<Rightarrow> 'a list" where
  "designated z n ds = store_all (replicate n z) ds"

fun runs_size :: "(nat \<times> 'a list) list \<Rightarrow> nat" where
  "runs_size [] = 0"
| "runs_size ((i, xs) # rs) = max (i + length xs) (runs_size rs)"

fun run_elements :: "(nat \<times> 'a list) list \<Rightarrow> (nat \<times> 'a) list" where
  "run_elements [] = []"
| "run_elements ((i, xs) # rs) = enumerate i xs @ run_elements rs"

definition designated_runs :: "'a \<Rightarrow> (nat \<times> 'a list) list \<Rightarrow> 'a list" where
  "designated_runs z rs = designated z (runs_size rs) (run_elements rs)"

section \<open>Single elements\<close>

lemma store_all_simps [simp]:
  "store_all xs [] = xs"
  "store_all xs ((i, x) # ds) = store_all (xs[i := x]) ds"
  "store_all xs (ds @ es) = store_all (store_all xs ds) es"
  by (simp_all add: store_all_def)

lemma length_store_all [simp]: "length (store_all xs ds) = length xs"
  by (induction ds arbitrary: xs) auto

lemma length_designated [simp]: "length (designated z n ds) = n"
  by (simp add: designated_def)

lemma store_all_nth:
  assumes "p < length xs"
  shows "store_all xs ds ! p = (case map_of (rev ds) p of None \<Rightarrow> xs ! p | Some x \<Rightarrow> x)"
proof (induction ds rule: rev_induct)
  case (snoc d ds)
  then show ?case using assms by (cases d) (auto simp: nth_list_update)
qed simp

lemma designated_nth:
  "p < n \<Longrightarrow> designated z n ds ! p = (case map_of (rev ds) p of None \<Rightarrow> z | Some x \<Rightarrow> x)"
  by (simp add: designated_def store_all_nth split: option.split)

lemma designated_cases:
  assumes "p < n"
  obtains "p \<notin> fst ` set ds" "designated z n ds ! p = z"
    | "(p, designated z n ds ! p) \<in> set ds"
proof (cases "map_of (rev ds) p")
  case None
  then have "p \<notin> fst ` set ds" by (simp add: map_of_eq_None_iff)
  with None assms that(1) show thesis by (simp add: designated_nth)
next
  case (Some x)
  then have "(p, x) \<in> set ds" using map_of_SomeD by fastforce
  with Some assms that(2) show thesis by (simp add: designated_nth)
qed

lemma store_all_dense:
  "map fst ds = [length ys..<length ys + length ds] \<Longrightarrow>
   store_all (ys @ replicate (length ds) z) ds = ys @ map snd ds"
proof (induction ds arbitrary: ys)
  case (Cons d ds)
  have "[length ys..<length ys + length (d # ds)] =
      length ys # [length (ys @ [snd d])..<length (ys @ [snd d]) + length ds]"
    by (simp add: upt_conv_Cons del: upt_Suc)
  with Cons.prems have "fst d = length ys"
    "map fst ds = [length (ys @ [snd d])..<length (ys @ [snd d]) + length ds]"
    by (simp_all del: upt_Suc)
  with Cons.IH [OF this(2)] show ?case by (cases d) simp
qed simp

text \<open>A table that lists its elements in order.\<close>

lemma designated_dense:
  assumes "map fst ds = [0..<n]"
  shows "designated z n ds = map snd ds"
proof -
  have "length ds = n" using arg_cong [OF assms, of length] by simp
  then show ?thesis using store_all_dense [of ds "[]" z] assms by (simp add: designated_def)
qed

lemma dense_nth: "map fst ds = [0..<n] \<Longrightarrow> (i, x) \<in> set ds \<Longrightarrow> map snd ds ! i = x"
  by (metis fst_conv in_set_conv_nth length_map nth_map nth_upt add_0 length_upt minus_nat.diff_0 snd_conv)

section \<open>Runs\<close>

text \<open>The runs follow each other without a gap: \<open>runs_end i rs = Some n\<close> when they fill the indices
  from \<open>i\<close> up to \<open>n\<close>.\<close>

fun runs_end :: "nat \<Rightarrow> (nat \<times> 'a list) list \<Rightarrow> nat option" where
  "runs_end i [] = Some i"
| "runs_end i ((j, xs) # rs) = (if j = i then runs_end (i + length xs) rs else None)"

lemma runs_end_append:
  "runs_end i (rs @ qs) = (case runs_end i rs of None \<Rightarrow> None | Some j \<Rightarrow> runs_end j qs)"
  by (induction i rs rule: runs_end.induct) auto

lemma runs_end_append_Some [simp]: "runs_end i rs = Some j \<Longrightarrow> runs_end i (rs @ qs) = runs_end j qs"
  by (simp add: runs_end_append)

lemma runs_end_le: "runs_end i rs = Some n \<Longrightarrow> i \<le> n"
  by (induction i rs rule: runs_end.induct) (auto split: if_splits)

lemma runs_end_size: "runs_end i rs = Some n \<Longrightarrow> rs \<noteq> [] \<Longrightarrow> runs_size rs = n"
proof (induction i rs rule: runs_end.induct)
  case (2 i j xs rs)
  then show ?case
    by (cases rs) (auto split: if_splits dest: runs_end_le)
qed simp

lemma runs_end_length:
  "runs_end i rs = Some n \<Longrightarrow> length (concat (map snd rs)) = n - i"
  by (induction i rs rule: runs_end.induct) (auto split: if_splits dest: runs_end_le)

lemma store_all_enumerate:
  "length xs \<le> m \<Longrightarrow>
   store_all (ys @ replicate m z) (enumerate (length ys) xs) = ys @ xs @ replicate (m - length xs) z"
proof (induction xs arbitrary: ys m)
  case (Cons x xs)
  then obtain k where m: "m = Suc k" by (cases m) auto
  with Cons.IH[of k "ys @ [x]"] Cons.prems show ?case by simp
qed simp

lemma store_all_runs:
  "runs_end (length ys) rs = Some n \<Longrightarrow>
   store_all (ys @ replicate (n - length ys) z) (run_elements rs) = ys @ concat (map snd rs)"
proof (induction rs arbitrary: ys)
  case (Cons r rs)
  obtain j xs where r: "r = (j, xs)" by fastforce
  with Cons.prems have e: "j = length ys" "runs_end (length (ys @ xs)) rs = Some n"
    by (auto split: if_splits)
  then have "length ys + length xs \<le> n" using runs_end_le by fastforce
  then have "store_all (ys @ replicate (n - length ys) z) (enumerate j xs) =
      (ys @ xs) @ replicate (n - length (ys @ xs)) z"
    using e(1) by (simp add: store_all_enumerate)
  with Cons.IH[OF e(2)] r show ?case by simp
qed simp

theorem designated_runs_concat:
  assumes "runs_end 0 rs = Some n"
  shows "designated_runs z rs = concat (map snd rs)" "length (designated_runs z rs) = n"
proof -
  have "runs_size rs = n" using assms runs_end_size by (cases "rs = []") fastforce+
  then show c: "designated_runs z rs = concat (map snd rs)"
    using store_all_runs[of "[]" rs n z] assms by (simp add: designated_runs_def designated_def)
  show "length (designated_runs z rs) = n" using runs_end_length[OF assms] c by simp
qed

lemma runs_end_slice:
  "runs_end i rs = Some n \<Longrightarrow> (j, xs) \<in> set rs \<Longrightarrow>
   i \<le> j \<and> j + length xs \<le> n \<and> take (length xs) (drop (j - i) (concat (map snd rs))) = xs"
proof (induction i rs rule: runs_end.induct)
  case (2 i k ys rs)
  then have e: "k = i" "runs_end (i + length ys) rs = Some n" by (auto split: if_splits)
  show ?case
  proof (cases "(j, xs) = (k, ys)")
    case True
    then show ?thesis using e runs_end_le[OF e(2)] by auto
  next
    case False
    with 2 e have "i + length ys \<le> j \<and> j + length xs \<le> n \<and>
      take (length xs) (drop (j - (i + length ys)) (concat (map snd rs))) = xs" by auto
    moreover from this have "length ys \<le> j - i" by linarith
    moreover from this have "drop (j - (i + length ys)) (concat (map snd rs)) =
      drop (j - i) (concat (map snd ((k, ys) # rs)))"
      by (auto simp: diff_diff_left)
    ultimately show ?thesis using e(1) by (metis add_leD1)
  qed
qed simp

lemma runs_end_cover:
  "runs_end i rs = Some n \<Longrightarrow> i \<le> p \<Longrightarrow> p < n \<Longrightarrow>
   \<exists>j xs. (j, xs) \<in> set rs \<and> j \<le> p \<and> p < j + length xs"
proof (induction i rs rule: runs_end.induct)
  case (2 i k ys rs)
  then have e: "k = i" "runs_end (i + length ys) rs = Some n" by (auto split: if_splits)
  show ?case
  proof (cases "p < i + length ys")
    case True
    with e(1) 2(3) show ?thesis by auto
  next
    case False
    then have "i + length ys \<le> p" by simp
    from 2(1)[OF e(1,2) this 2(4)] show ?thesis by auto
  qed
qed simp

theorem designated_runs_slice:
  assumes "runs_end 0 rs = Some n" "(j, xs) \<in> set rs"
  shows "j + length xs \<le> n" "take (length xs) (drop j (designated_runs z rs)) = xs"
  using runs_end_slice[OF assms] designated_runs_concat(1)[OF assms(1)] by auto

text \<open>The next run, when it starts where the last one ends.\<close>

lemma runs_end_next [simp]: "runs_end i ((i, xs) # rs) = runs_end (i + length xs) rs"
  by simp

declare runs_end.simps(2) [simp del]

end
