(* ===== verification/Mojo_Grammar.thy ===== *)
theory Mojo_Grammar
  imports Mojo_Lex_Tables
begin

text \<open>
  The symbols of the grammar that the lexers do not produce (the rest of the enum
  \<open>ts_symbol_identifiers\<close> of \<^verbatim>\<open>grammars/tree-sitter-mojo/src/parser.c\<close>), the fields
  (\<open>ts_field_identifiers\<close>) and the sizes of the tables that are indexed by them.
\<close>

section \<open>Symbols\<close>

definition sym__newline :: nat where "sym__newline = 127"
definition sym__indent :: nat where "sym__indent = 128"
definition sym__dedent :: nat where "sym__dedent = 129"
definition sym_string_start :: nat where "sym_string_start = 130"
definition sym__string_content :: nat where "sym__string_content = 131"
definition sym_escape_interpolation :: nat where "sym_escape_interpolation = 132"
definition sym_string_end :: nat where "sym_string_end = 133"
definition sym__mlir_backtick :: nat where "sym__mlir_backtick = 134"
definition sym__mlir_ident :: nat where "sym__mlir_ident = 135"
definition sym__mlir_number :: nat where "sym__mlir_number = 136"
definition sym_mlir_punctuation :: nat where "sym_mlir_punctuation = 137"
definition sym_module :: nat where "sym_module = 138"
definition sym__statement :: nat where "sym__statement = 139"
definition sym__simple_statements :: nat where "sym__simple_statements = 140"
definition sym_import_statement :: nat where "sym_import_statement = 141"
definition sym_import_prefix :: nat where "sym_import_prefix = 142"
definition sym_relative_import :: nat where "sym_relative_import = 143"
definition sym_future_import_statement :: nat where "sym_future_import_statement = 144"
definition sym_import_from_statement :: nat where "sym_import_from_statement = 145"
definition sym__import_list :: nat where "sym__import_list = 146"
definition sym_aliased_import :: nat where "sym_aliased_import = 147"
definition sym_wildcard_import :: nat where "sym_wildcard_import = 148"
definition sym_print_statement :: nat where "sym_print_statement = 149"
definition sym_chevron :: nat where "sym_chevron = 150"
definition sym_assert_statement :: nat where "sym_assert_statement = 151"
definition sym_comptime_assert_statement :: nat where "sym_comptime_assert_statement = 152"
definition sym_expression_statement :: nat where "sym_expression_statement = 153"
definition sym_tuple_expression :: nat where "sym_tuple_expression = 154"
definition sym_named_expression :: nat where "sym_named_expression = 155"
definition sym__named_expression_lhs :: nat where "sym__named_expression_lhs = 156"
definition sym_return_statement :: nat where "sym_return_statement = 157"
definition sym_delete_statement :: nat where "sym_delete_statement = 158"
definition sym_raise_statement :: nat where "sym_raise_statement = 159"
definition sym_pass_statement :: nat where "sym_pass_statement = 160"
definition sym_break_statement :: nat where "sym_break_statement = 161"
definition sym_continue_statement :: nat where "sym_continue_statement = 162"
definition sym_extension_definition :: nat where "sym_extension_definition = 163"
definition sym_mlir_region :: nat where "sym_mlir_region = 164"
definition sym_comptime_statement :: nat where "sym_comptime_statement = 165"
definition sym_if_statement :: nat where "sym_if_statement = 166"
definition sym_elif_clause :: nat where "sym_elif_clause = 167"
definition sym_else_clause :: nat where "sym_else_clause = 168"
definition sym_match_statement :: nat where "sym_match_statement = 169"
definition sym__match_block :: nat where "sym__match_block = 170"
definition sym_case_clause :: nat where "sym_case_clause = 171"
definition sym_for_statement :: nat where "sym_for_statement = 172"
definition sym_while_statement :: nat where "sym_while_statement = 173"
definition sym_try_statement :: nat where "sym_try_statement = 174"
definition sym_except_clause :: nat where "sym_except_clause = 175"
definition sym_finally_clause :: nat where "sym_finally_clause = 176"
definition sym_with_statement :: nat where "sym_with_statement = 177"
definition sym_with_clause :: nat where "sym_with_clause = 178"
definition sym_with_item :: nat where "sym_with_item = 179"
definition sym_function_definition :: nat where "sym_function_definition = 180"
definition sym_result_convention :: nat where "sym_result_convention = 181"
definition aux_sym__function_effects :: nat where "aux_sym__function_effects = 182"
definition sym_abi_specifier :: nat where "sym_abi_specifier = 183"
definition sym__raises_type :: nat where "sym__raises_type = 184"
definition sym_capture_list :: nat where "sym_capture_list = 185"
definition sym_wildcard_origin :: nat where "sym_wildcard_origin = 186"
definition sym_parameters :: nat where "sym_parameters = 187"
definition sym_lambda_parameters :: nat where "sym_lambda_parameters = 188"
definition sym_list_splat :: nat where "sym_list_splat = 189"
definition sym_dictionary_splat :: nat where "sym_dictionary_splat = 190"
definition sym_global_statement :: nat where "sym_global_statement = 191"
definition sym_nonlocal_statement :: nat where "sym_nonlocal_statement = 192"
definition sym_exec_statement :: nat where "sym_exec_statement = 193"
definition sym_type_alias_statement :: nat where "sym_type_alias_statement = 194"
definition sym_parameterized_alias_statement :: nat where "sym_parameterized_alias_statement = 195"
definition sym_class_definition :: nat where "sym_class_definition = 196"
definition sym_superclass_list :: nat where "sym_superclass_list = 197"
definition sym_type_parameter :: nat where "sym_type_parameter = 198"
definition sym__type_parameter_default :: nat where "sym__type_parameter_default = 199"
definition sym_infer_separator :: nat where "sym_infer_separator = 200"
definition sym_trait_definition :: nat where "sym_trait_definition = 201"
definition sym_trait_list :: nat where "sym_trait_list = 202"
definition sym_parenthesized_list_splat :: nat where "sym_parenthesized_list_splat = 203"
definition sym_argument_list :: nat where "sym_argument_list = 204"
definition sym_parameter_list :: nat where "sym_parameter_list = 205"
definition sym_decorated_definition :: nat where "sym_decorated_definition = 206"
definition sym_except_group_clause :: nat where "sym_except_group_clause = 207"
definition sym_decorator :: nat where "sym_decorator = 208"
definition sym_block :: nat where "sym_block = 209"
definition sym_expression_list :: nat where "sym_expression_list = 210"
definition sym_dotted_name :: nat where "sym_dotted_name = 211"
definition sym_case_pattern :: nat where "sym_case_pattern = 212"
definition sym__simple_pattern :: nat where "sym__simple_pattern = 213"
definition sym__as_pattern :: nat where "sym__as_pattern = 214"
definition sym_union_pattern :: nat where "sym_union_pattern = 215"
definition sym__list_pattern :: nat where "sym__list_pattern = 216"
definition sym__tuple_pattern :: nat where "sym__tuple_pattern = 217"
definition sym_dict_pattern :: nat where "sym_dict_pattern = 218"
definition sym__key_value_pattern :: nat where "sym__key_value_pattern = 219"
definition sym_keyword_pattern :: nat where "sym_keyword_pattern = 220"
definition sym_splat_pattern :: nat where "sym_splat_pattern = 221"
definition sym_class_pattern :: nat where "sym_class_pattern = 222"
definition sym_complex_pattern :: nat where "sym_complex_pattern = 223"
definition sym__parameters :: nat where "sym__parameters = 224"
definition sym__patterns :: nat where "sym__patterns = 225"
definition sym_parameter :: nat where "sym_parameter = 226"
definition sym_pattern :: nat where "sym_pattern = 227"
definition sym_tuple_pattern :: nat where "sym_tuple_pattern = 228"
definition sym_list_pattern :: nat where "sym_list_pattern = 229"
definition sym__ref_convention :: nat where "sym__ref_convention = 230"
definition sym_argument_convention :: nat where "sym_argument_convention = 231"
definition sym_unified_clause :: nat where "sym_unified_clause = 232"
definition sym_where_clause :: nat where "sym_where_clause = 233"
definition sym_self_parameter :: nat where "sym_self_parameter = 234"
definition sym_typed_parameter :: nat where "sym_typed_parameter = 235"
definition sym_default_parameter :: nat where "sym_default_parameter = 236"
definition sym_typed_default_parameter :: nat where "sym_typed_default_parameter = 237"
definition sym_list_splat_pattern :: nat where "sym_list_splat_pattern = 238"
definition sym_dictionary_splat_pattern :: nat where "sym_dictionary_splat_pattern = 239"
definition sym_as_pattern :: nat where "sym_as_pattern = 240"
definition sym__expression_within_for_in_clause :: nat where "sym__expression_within_for_in_clause = 241"
definition sym_expression :: nat where "sym_expression = 242"
definition sym_primary_expression :: nat where "sym_primary_expression = 243"
definition sym_comptime_expression :: nat where "sym_comptime_expression = 244"
definition sym_transfer_expression :: nat where "sym_transfer_expression = 245"
definition sym_not_operator :: nat where "sym_not_operator = 246"
definition sym_boolean_operator :: nat where "sym_boolean_operator = 247"
definition sym_binary_operator :: nat where "sym_binary_operator = 248"
definition sym_unary_operator :: nat where "sym_unary_operator = 249"
definition sym__not_in :: nat where "sym__not_in = 250"
definition sym__is_not :: nat where "sym__is_not = 251"
definition sym_comparison_operator :: nat where "sym_comparison_operator = 252"
definition sym_lambda :: nat where "sym_lambda = 253"
definition sym_lambda_within_for_in_clause :: nat where "sym_lambda_within_for_in_clause = 254"
definition sym_assignment :: nat where "sym_assignment = 255"
definition sym_augmented_assignment :: nat where "sym_augmented_assignment = 256"
definition sym_pattern_list :: nat where "sym_pattern_list = 257"
definition sym__right_hand_side :: nat where "sym__right_hand_side = 258"
definition sym_yield :: nat where "sym_yield = 259"
definition sym_attribute :: nat where "sym_attribute = 260"
definition sym_subscript :: nat where "sym_subscript = 261"
definition sym_slice :: nat where "sym_slice = 262"
definition sym_call :: nat where "sym_call = 263"
definition sym_type :: nat where "sym_type = 264"
definition sym_called_type :: nat where "sym_called_type = 265"
definition sym_function_type :: nat where "sym_function_type = 266"
definition sym_splat_type :: nat where "sym_splat_type = 267"
definition sym_generic_type :: nat where "sym_generic_type = 268"
definition sym_union_type :: nat where "sym_union_type = 269"
definition sym_intersection_type :: nat where "sym_intersection_type = 270"
definition sym__intersection_operand :: nat where "sym__intersection_operand = 271"
definition sym_constrained_type :: nat where "sym_constrained_type = 272"
definition sym_member_type :: nat where "sym_member_type = 273"
definition sym_slice_keyword_argument :: nat where "sym_slice_keyword_argument = 274"
definition sym_keyword_argument :: nat where "sym_keyword_argument = 275"
definition sym_mlir_fragment :: nat where "sym_mlir_fragment = 276"
definition sym_mlir_type :: nat where "sym_mlir_type = 277"
definition sym_list :: nat where "sym_list = 278"
definition sym_set :: nat where "sym_set = 279"
definition sym_tuple :: nat where "sym_tuple = 280"
definition sym_dictionary :: nat where "sym_dictionary = 281"
definition sym_pair :: nat where "sym_pair = 282"
definition sym_struct_literal :: nat where "sym_struct_literal = 283"
definition sym_struct_literal_field :: nat where "sym_struct_literal_field = 284"
definition sym_list_comprehension :: nat where "sym_list_comprehension = 285"
definition sym_dictionary_comprehension :: nat where "sym_dictionary_comprehension = 286"
definition sym_set_comprehension :: nat where "sym_set_comprehension = 287"
definition sym_generator_expression :: nat where "sym_generator_expression = 288"
definition sym__comprehension_clauses :: nat where "sym__comprehension_clauses = 289"
definition sym_parenthesized_expression :: nat where "sym_parenthesized_expression = 290"
definition sym__collection_elements :: nat where "sym__collection_elements = 291"
definition sym_for_in_clause :: nat where "sym_for_in_clause = 292"
definition sym_if_clause :: nat where "sym_if_clause = 293"
definition sym_conditional_expression :: nat where "sym_conditional_expression = 294"
definition sym_concatenated_string :: nat where "sym_concatenated_string = 295"
definition sym_string :: nat where "sym_string = 296"
definition sym_string_content :: nat where "sym_string_content = 297"
definition sym_interpolation :: nat where "sym_interpolation = 298"
definition sym__f_expression :: nat where "sym__f_expression = 299"
definition sym__not_escape_sequence :: nat where "sym__not_escape_sequence = 300"
definition sym_format_specifier :: nat where "sym_format_specifier = 301"
definition sym_await :: nat where "sym_await = 302"
definition sym_positional_separator :: nat where "sym_positional_separator = 303"
definition sym_keyword_separator :: nat where "sym_keyword_separator = 304"
definition aux_sym_module_repeat1 :: nat where "aux_sym_module_repeat1 = 305"
definition aux_sym__simple_statements_repeat1 :: nat where "aux_sym__simple_statements_repeat1 = 306"
definition aux_sym_import_prefix_repeat1 :: nat where "aux_sym_import_prefix_repeat1 = 307"
definition aux_sym__import_list_repeat1 :: nat where "aux_sym__import_list_repeat1 = 308"
definition aux_sym_print_statement_repeat1 :: nat where "aux_sym_print_statement_repeat1 = 309"
definition aux_sym_assert_statement_repeat1 :: nat where "aux_sym_assert_statement_repeat1 = 310"
definition aux_sym_if_statement_repeat1 :: nat where "aux_sym_if_statement_repeat1 = 311"
definition aux_sym_match_statement_repeat1 :: nat where "aux_sym_match_statement_repeat1 = 312"
definition aux_sym__match_block_repeat1 :: nat where "aux_sym__match_block_repeat1 = 313"
definition aux_sym_case_clause_repeat1 :: nat where "aux_sym_case_clause_repeat1 = 314"
definition aux_sym_try_statement_repeat1 :: nat where "aux_sym_try_statement_repeat1 = 315"
definition aux_sym_try_statement_repeat2 :: nat where "aux_sym_try_statement_repeat2 = 316"
definition aux_sym_with_clause_repeat1 :: nat where "aux_sym_with_clause_repeat1 = 317"
definition aux_sym_function_definition_repeat1 :: nat where "aux_sym_function_definition_repeat1 = 318"
definition aux_sym_result_convention_repeat1 :: nat where "aux_sym_result_convention_repeat1 = 319"
definition aux_sym_capture_list_repeat1 :: nat where "aux_sym_capture_list_repeat1 = 320"
definition aux_sym_global_statement_repeat1 :: nat where "aux_sym_global_statement_repeat1 = 321"
definition aux_sym_superclass_list_repeat1 :: nat where "aux_sym_superclass_list_repeat1 = 322"
definition aux_sym_type_parameter_repeat1 :: nat where "aux_sym_type_parameter_repeat1 = 323"
definition aux_sym_argument_list_repeat1 :: nat where "aux_sym_argument_list_repeat1 = 324"
definition aux_sym_parameter_list_repeat1 :: nat where "aux_sym_parameter_list_repeat1 = 325"
definition aux_sym_decorated_definition_repeat1 :: nat where "aux_sym_decorated_definition_repeat1 = 326"
definition aux_sym_dotted_name_repeat1 :: nat where "aux_sym_dotted_name_repeat1 = 327"
definition aux_sym_union_pattern_repeat1 :: nat where "aux_sym_union_pattern_repeat1 = 328"
definition aux_sym_dict_pattern_repeat1 :: nat where "aux_sym_dict_pattern_repeat1 = 329"
definition aux_sym__parameters_repeat1 :: nat where "aux_sym__parameters_repeat1 = 330"
definition aux_sym__patterns_repeat1 :: nat where "aux_sym__patterns_repeat1 = 331"
definition aux_sym_unified_clause_repeat1 :: nat where "aux_sym_unified_clause_repeat1 = 332"
definition aux_sym_comparison_operator_repeat1 :: nat where "aux_sym_comparison_operator_repeat1 = 333"
definition aux_sym_subscript_repeat1 :: nat where "aux_sym_subscript_repeat1 = 334"
definition aux_sym_called_type_repeat1 :: nat where "aux_sym_called_type_repeat1 = 335"
definition aux_sym_function_type_repeat1 :: nat where "aux_sym_function_type_repeat1 = 336"
definition aux_sym_intersection_type_repeat1 :: nat where "aux_sym_intersection_type_repeat1 = 337"
definition aux_sym_mlir_fragment_repeat1 :: nat where "aux_sym_mlir_fragment_repeat1 = 338"
definition aux_sym_dictionary_repeat1 :: nat where "aux_sym_dictionary_repeat1 = 339"
definition aux_sym_struct_literal_repeat1 :: nat where "aux_sym_struct_literal_repeat1 = 340"
definition aux_sym__comprehension_clauses_repeat1 :: nat where "aux_sym__comprehension_clauses_repeat1 = 341"
definition aux_sym__collection_elements_repeat1 :: nat where "aux_sym__collection_elements_repeat1 = 342"
definition aux_sym_for_in_clause_repeat1 :: nat where "aux_sym_for_in_clause_repeat1 = 343"
definition aux_sym_concatenated_string_repeat1 :: nat where "aux_sym_concatenated_string_repeat1 = 344"
definition aux_sym_string_repeat1 :: nat where "aux_sym_string_repeat1 = 345"
definition aux_sym_string_content_repeat1 :: nat where "aux_sym_string_content_repeat1 = 346"
definition aux_sym_format_specifier_repeat1 :: nat where "aux_sym_format_specifier_repeat1 = 347"
definition alias_sym_as_pattern_target :: nat where "alias_sym_as_pattern_target = 348"
definition alias_sym_format_expression :: nat where "alias_sym_format_expression = 349"

lemmas grammar_symbol_defs =
  sym__newline_def sym__indent_def sym__dedent_def sym_string_start_def
  sym__string_content_def sym_escape_interpolation_def sym_string_end_def sym__mlir_backtick_def
  sym__mlir_ident_def sym__mlir_number_def sym_mlir_punctuation_def sym_module_def
  sym__statement_def sym__simple_statements_def sym_import_statement_def sym_import_prefix_def
  sym_relative_import_def sym_future_import_statement_def sym_import_from_statement_def sym__import_list_def
  sym_aliased_import_def sym_wildcard_import_def sym_print_statement_def sym_chevron_def
  sym_assert_statement_def sym_comptime_assert_statement_def sym_expression_statement_def sym_tuple_expression_def
  sym_named_expression_def sym__named_expression_lhs_def sym_return_statement_def sym_delete_statement_def
  sym_raise_statement_def sym_pass_statement_def sym_break_statement_def sym_continue_statement_def
  sym_extension_definition_def sym_mlir_region_def sym_comptime_statement_def sym_if_statement_def
  sym_elif_clause_def sym_else_clause_def sym_match_statement_def sym__match_block_def
  sym_case_clause_def sym_for_statement_def sym_while_statement_def sym_try_statement_def
  sym_except_clause_def sym_finally_clause_def sym_with_statement_def sym_with_clause_def
  sym_with_item_def sym_function_definition_def sym_result_convention_def aux_sym__function_effects_def
  sym_abi_specifier_def sym__raises_type_def sym_capture_list_def sym_wildcard_origin_def
  sym_parameters_def sym_lambda_parameters_def sym_list_splat_def sym_dictionary_splat_def
  sym_global_statement_def sym_nonlocal_statement_def sym_exec_statement_def sym_type_alias_statement_def
  sym_parameterized_alias_statement_def sym_class_definition_def sym_superclass_list_def sym_type_parameter_def
  sym__type_parameter_default_def sym_infer_separator_def sym_trait_definition_def sym_trait_list_def
  sym_parenthesized_list_splat_def sym_argument_list_def sym_parameter_list_def sym_decorated_definition_def
  sym_except_group_clause_def sym_decorator_def sym_block_def sym_expression_list_def
  sym_dotted_name_def sym_case_pattern_def sym__simple_pattern_def sym__as_pattern_def
  sym_union_pattern_def sym__list_pattern_def sym__tuple_pattern_def sym_dict_pattern_def
  sym__key_value_pattern_def sym_keyword_pattern_def sym_splat_pattern_def sym_class_pattern_def
  sym_complex_pattern_def sym__parameters_def sym__patterns_def sym_parameter_def
  sym_pattern_def sym_tuple_pattern_def sym_list_pattern_def sym__ref_convention_def
  sym_argument_convention_def sym_unified_clause_def sym_where_clause_def sym_self_parameter_def
  sym_typed_parameter_def sym_default_parameter_def sym_typed_default_parameter_def sym_list_splat_pattern_def
  sym_dictionary_splat_pattern_def sym_as_pattern_def sym__expression_within_for_in_clause_def sym_expression_def
  sym_primary_expression_def sym_comptime_expression_def sym_transfer_expression_def sym_not_operator_def
  sym_boolean_operator_def sym_binary_operator_def sym_unary_operator_def sym__not_in_def
  sym__is_not_def sym_comparison_operator_def sym_lambda_def sym_lambda_within_for_in_clause_def
  sym_assignment_def sym_augmented_assignment_def sym_pattern_list_def sym__right_hand_side_def
  sym_yield_def sym_attribute_def sym_subscript_def sym_slice_def
  sym_call_def sym_type_def sym_called_type_def sym_function_type_def
  sym_splat_type_def sym_generic_type_def sym_union_type_def sym_intersection_type_def
  sym__intersection_operand_def sym_constrained_type_def sym_member_type_def sym_slice_keyword_argument_def
  sym_keyword_argument_def sym_mlir_fragment_def sym_mlir_type_def sym_list_def
  sym_set_def sym_tuple_def sym_dictionary_def sym_pair_def
  sym_struct_literal_def sym_struct_literal_field_def sym_list_comprehension_def sym_dictionary_comprehension_def
  sym_set_comprehension_def sym_generator_expression_def sym__comprehension_clauses_def sym_parenthesized_expression_def
  sym__collection_elements_def sym_for_in_clause_def sym_if_clause_def sym_conditional_expression_def
  sym_concatenated_string_def sym_string_def sym_string_content_def sym_interpolation_def
  sym__f_expression_def sym__not_escape_sequence_def sym_format_specifier_def sym_await_def
  sym_positional_separator_def sym_keyword_separator_def aux_sym_module_repeat1_def aux_sym__simple_statements_repeat1_def
  aux_sym_import_prefix_repeat1_def aux_sym__import_list_repeat1_def aux_sym_print_statement_repeat1_def aux_sym_assert_statement_repeat1_def
  aux_sym_if_statement_repeat1_def aux_sym_match_statement_repeat1_def aux_sym__match_block_repeat1_def aux_sym_case_clause_repeat1_def
  aux_sym_try_statement_repeat1_def aux_sym_try_statement_repeat2_def aux_sym_with_clause_repeat1_def aux_sym_function_definition_repeat1_def
  aux_sym_result_convention_repeat1_def aux_sym_capture_list_repeat1_def aux_sym_global_statement_repeat1_def aux_sym_superclass_list_repeat1_def
  aux_sym_type_parameter_repeat1_def aux_sym_argument_list_repeat1_def aux_sym_parameter_list_repeat1_def aux_sym_decorated_definition_repeat1_def
  aux_sym_dotted_name_repeat1_def aux_sym_union_pattern_repeat1_def aux_sym_dict_pattern_repeat1_def aux_sym__parameters_repeat1_def
  aux_sym__patterns_repeat1_def aux_sym_unified_clause_repeat1_def aux_sym_comparison_operator_repeat1_def aux_sym_subscript_repeat1_def
  aux_sym_called_type_repeat1_def aux_sym_function_type_repeat1_def aux_sym_intersection_type_repeat1_def aux_sym_mlir_fragment_repeat1_def
  aux_sym_dictionary_repeat1_def aux_sym_struct_literal_repeat1_def aux_sym__comprehension_clauses_repeat1_def aux_sym__collection_elements_repeat1_def
  aux_sym_for_in_clause_repeat1_def aux_sym_concatenated_string_repeat1_def aux_sym_string_repeat1_def aux_sym_string_content_repeat1_def
  aux_sym_format_specifier_repeat1_def alias_sym_as_pattern_target_def alias_sym_format_expression_def

section \<open>Fields\<close>

definition field_alternative :: nat where "field_alternative = 1"
definition field_argument :: nat where "field_argument = 2"
definition field_arguments :: nat where "field_arguments = 3"
definition field_attribute :: nat where "field_attribute = 4"
definition field_body :: nat where "field_body = 5"
definition field_cause :: nat where "field_cause = 6"
definition field_code :: nat where "field_code = 7"
definition field_comptime :: nat where "field_comptime = 8"
definition field_condition :: nat where "field_condition = 9"
definition field_consequence :: nat where "field_consequence = 10"
definition field_default :: nat where "field_default = 11"
definition field_definition :: nat where "field_definition = 12"
definition field_expression :: nat where "field_expression = 13"
definition field_format_specifier :: nat where "field_format_specifier = 14"
definition field_function :: nat where "field_function = 15"
definition field_guard :: nat where "field_guard = 16"
definition field_key :: nat where "field_key = 17"
definition field_left :: nat where "field_left = 18"
definition field_module_name :: nat where "field_module_name = 19"
definition field_name :: nat where "field_name = 20"
definition field_object :: nat where "field_object = 21"
definition field_operator :: nat where "field_operator = 22"
definition field_operators :: nat where "field_operators = 23"
definition field_parameter :: nat where "field_parameter = 24"
definition field_parameters :: nat where "field_parameters = 25"
definition field_raises_type :: nat where "field_raises_type = 26"
definition field_return_type :: nat where "field_return_type = 27"
definition field_right :: nat where "field_right = 28"
definition field_subject :: nat where "field_subject = 29"
definition field_subscript :: nat where "field_subscript = 30"
definition field_superclasses :: nat where "field_superclasses = 31"
definition field_supertraits :: nat where "field_supertraits = 32"
definition field_type :: nat where "field_type = 33"
definition field_type_conversion :: nat where "field_type_conversion = 34"
definition field_type_parameters :: nat where "field_type_parameters = 35"
definition field_value :: nat where "field_value = 36"

lemmas field_defs =
  field_alternative_def field_argument_def field_arguments_def field_attribute_def field_body_def
  field_cause_def field_code_def field_comptime_def field_condition_def field_consequence_def
  field_default_def field_definition_def field_expression_def field_format_specifier_def field_function_def
  field_guard_def field_key_def field_left_def field_module_name_def field_name_def
  field_object_def field_operator_def field_operators_def field_parameter_def field_parameters_def
  field_raises_type_def field_return_type_def field_right_def field_subject_def field_subscript_def
  field_superclasses_def field_supertraits_def field_type_def field_type_conversion_def field_type_parameters_def
  field_value_def

section \<open>Sizes\<close>

definition SYMBOL_COUNT :: nat where "SYMBOL_COUNT = 348"
definition ALIAS_COUNT :: nat where "ALIAS_COUNT = 2"
definition FIELD_COUNT :: nat where "FIELD_COUNT = 36"
definition MAX_ALIAS_SEQUENCE_LENGTH :: nat where "MAX_ALIAS_SEQUENCE_LENGTH = 20"
definition PRODUCTION_ID_COUNT :: nat where "PRODUCTION_ID_COUNT = 999"

end
