(* ===== verification/Mojo_Lex_Modes.thy ===== *)
theory Mojo_Lex_Modes
  imports Prelude
begin

text \<open>
  The table \<open>ts_lex_modes\<close> of \<^verbatim>\<open>grammars/tree-sitter-mojo/src/parser.c\<close>: for each parse state, in
  order, the state in which \<open>ts_lex\<close> starts, the row of \<open>ts_external_scanner_states\<close> with the tokens
  the external scanner may produce, and the set of reserved words. Definitions only; the table
  is split into blocks of 150 lines.
\<close>

section \<open>Sizes\<close>

definition STATE_COUNT :: nat where "STATE_COUNT = 12758"
definition TOKEN_COUNT :: nat where "TOKEN_COUNT = 138"
definition EXTERNAL_TOKEN_COUNT :: nat where "EXTERNAL_TOKEN_COUNT = 16"

section \<open>Lex modes\<close>

record TSLexerMode =
  lex_state :: nat
  external_lex_state :: nat
  reserved_word_set_id :: nat

text \<open>\<open>{.lex_state = a, .external_lex_state = b, .reserved_word_set_id = c}\<close>; a field that is not
  named is 0.\<close>

definition lexer_mode :: "nat \<Rightarrow> nat \<Rightarrow> nat \<Rightarrow> TSLexerMode" where
  "lexer_mode a b c = \<lparr>lex_state = a, external_lex_state = b, reserved_word_set_id = c\<rparr>"

definition ts_lex_modes_0 :: "TSLexerMode list" where "ts_lex_modes_0 = [
    lexer_mode 0 1 0, lexer_mode 53 2 1, lexer_mode 53 3 1, lexer_mode 53 3 1, lexer_mode 53 3 1,
    lexer_mode 53 3 1, lexer_mode 53 3 1, lexer_mode 53 3 1, lexer_mode 53 3 1, lexer_mode 53 3 1,
    lexer_mode 53 3 1, lexer_mode 53 3 1, lexer_mode 53 3 1, lexer_mode 53 3 1, lexer_mode 53 3 1,
    lexer_mode 53 3 1, lexer_mode 53 3 1, lexer_mode 53 3 1, lexer_mode 53 3 1, lexer_mode 53 3 1,
    lexer_mode 53 3 1, lexer_mode 53 3 1, lexer_mode 53 3 1, lexer_mode 53 3 1, lexer_mode 53 3 1,
    lexer_mode 53 3 2, lexer_mode 53 3 1, lexer_mode 53 3 1, lexer_mode 53 3 1, lexer_mode 53 3 1,
    lexer_mode 53 3 1, lexer_mode 53 3 1, lexer_mode 53 3 1, lexer_mode 53 3 1, lexer_mode 53 3 1,
    lexer_mode 53 3 1, lexer_mode 53 3 1, lexer_mode 53 3 1, lexer_mode 53 3 1, lexer_mode 53 3 1,
    lexer_mode 53 3 1, lexer_mode 53 3 1, lexer_mode 53 3 1, lexer_mode 53 3 1, lexer_mode 53 3 1,
    lexer_mode 53 3 1, lexer_mode 53 3 1, lexer_mode 53 3 1, lexer_mode 53 3 1, lexer_mode 53 3 1,
    lexer_mode 53 3 1, lexer_mode 53 3 1, lexer_mode 53 3 1, lexer_mode 53 3 1, lexer_mode 53 3 1,
    lexer_mode 53 3 1, lexer_mode 53 3 1, lexer_mode 53 3 1, lexer_mode 53 3 1, lexer_mode 53 3 1,
    lexer_mode 53 3 1, lexer_mode 53 3 1, lexer_mode 53 3 1, lexer_mode 53 3 1, lexer_mode 53 3 1,
    lexer_mode 53 3 1, lexer_mode 53 3 1, lexer_mode 53 3 1, lexer_mode 53 3 1, lexer_mode 53 3 1,
    lexer_mode 53 3 1, lexer_mode 53 3 1, lexer_mode 53 3 1, lexer_mode 53 3 1, lexer_mode 53 3 1,
    lexer_mode 53 3 1, lexer_mode 53 3 1, lexer_mode 53 3 1, lexer_mode 53 3 1, lexer_mode 53 3 1,
    lexer_mode 53 3 1, lexer_mode 53 3 1, lexer_mode 53 3 1, lexer_mode 53 3 1, lexer_mode 53 3 1,
    lexer_mode 53 3 1, lexer_mode 53 3 1, lexer_mode 53 3 1, lexer_mode 53 3 1, lexer_mode 53 3 1,
    lexer_mode 53 3 1, lexer_mode 53 3 1, lexer_mode 53 3 1, lexer_mode 53 3 1, lexer_mode 53 3 1,
    lexer_mode 53 3 1, lexer_mode 53 3 1, lexer_mode 53 3 1, lexer_mode 53 3 1, lexer_mode 53 3 1,
    lexer_mode 53 3 1, lexer_mode 53 3 1, lexer_mode 53 3 1, lexer_mode 53 3 1, lexer_mode 53 3 1,
    lexer_mode 53 3 1, lexer_mode 53 3 1, lexer_mode 53 3 1, lexer_mode 53 3 1, lexer_mode 53 3 1,
    lexer_mode 53 3 1, lexer_mode 53 3 1, lexer_mode 53 3 1, lexer_mode 53 3 1, lexer_mode 53 3 1,
    lexer_mode 53 3 1, lexer_mode 53 3 1, lexer_mode 53 3 1, lexer_mode 53 3 1, lexer_mode 53 3 1,
    lexer_mode 53 3 1, lexer_mode 53 3 1, lexer_mode 53 3 1, lexer_mode 53 3 1, lexer_mode 53 3 1,
    lexer_mode 53 3 1, lexer_mode 53 3 1, lexer_mode 53 3 1, lexer_mode 53 3 1, lexer_mode 53 3 1,
    lexer_mode 53 3 1, lexer_mode 53 3 1, lexer_mode 53 3 1, lexer_mode 53 3 1, lexer_mode 53 3 1,
    lexer_mode 53 3 1, lexer_mode 53 3 1, lexer_mode 53 3 1, lexer_mode 53 3 1, lexer_mode 53 3 1,
    lexer_mode 53 3 1, lexer_mode 53 3 1, lexer_mode 53 3 1, lexer_mode 53 3 1, lexer_mode 53 3 1,
    lexer_mode 53 3 1, lexer_mode 53 3 1, lexer_mode 53 3 1, lexer_mode 53 3 1, lexer_mode 53 3 1]"

definition ts_lex_modes_1 :: "TSLexerMode list" where "ts_lex_modes_1 = [
    lexer_mode 53 3 1, lexer_mode 53 3 1, lexer_mode 53 3 1, lexer_mode 53 3 1, lexer_mode 53 3 1,
    lexer_mode 53 3 1, lexer_mode 53 3 1, lexer_mode 53 3 1, lexer_mode 53 3 1, lexer_mode 53 3 1,
    lexer_mode 53 3 1, lexer_mode 53 3 1, lexer_mode 53 3 1, lexer_mode 53 3 1, lexer_mode 53 3 1,
    lexer_mode 53 3 1, lexer_mode 53 3 1, lexer_mode 53 3 1, lexer_mode 53 3 1, lexer_mode 53 3 1,
    lexer_mode 53 3 1, lexer_mode 53 3 1, lexer_mode 53 3 1, lexer_mode 53 3 1, lexer_mode 53 3 1,
    lexer_mode 53 3 1, lexer_mode 53 3 1, lexer_mode 53 3 1, lexer_mode 53 3 1, lexer_mode 53 3 1,
    lexer_mode 53 3 1, lexer_mode 53 3 1, lexer_mode 53 3 1, lexer_mode 53 3 1, lexer_mode 53 3 1,
    lexer_mode 53 3 1, lexer_mode 53 3 1, lexer_mode 53 3 1, lexer_mode 53 3 1, lexer_mode 53 3 1,
    lexer_mode 53 3 1, lexer_mode 53 3 1, lexer_mode 53 3 1, lexer_mode 53 3 1, lexer_mode 53 3 1,
    lexer_mode 53 3 1, lexer_mode 53 3 1, lexer_mode 53 3 1, lexer_mode 53 3 1, lexer_mode 53 3 1,
    lexer_mode 53 3 1, lexer_mode 53 3 1, lexer_mode 53 3 1, lexer_mode 53 3 1, lexer_mode 53 3 1,
    lexer_mode 53 3 1, lexer_mode 53 3 1, lexer_mode 53 3 1, lexer_mode 53 3 1, lexer_mode 53 3 1,
    lexer_mode 53 3 1, lexer_mode 53 3 1, lexer_mode 53 3 1, lexer_mode 53 3 1, lexer_mode 53 3 1,
    lexer_mode 53 3 1, lexer_mode 53 3 1, lexer_mode 53 3 1, lexer_mode 53 3 1, lexer_mode 53 3 1,
    lexer_mode 53 3 1, lexer_mode 53 3 1, lexer_mode 53 3 1, lexer_mode 53 3 1, lexer_mode 53 3 1,
    lexer_mode 53 3 1, lexer_mode 53 3 1, lexer_mode 53 3 1, lexer_mode 53 3 1, lexer_mode 53 3 1,
    lexer_mode 53 3 1, lexer_mode 53 3 1, lexer_mode 53 3 1, lexer_mode 53 3 1, lexer_mode 53 3 1,
    lexer_mode 53 3 1, lexer_mode 53 3 1, lexer_mode 53 3 1, lexer_mode 53 3 1, lexer_mode 53 3 1,
    lexer_mode 53 3 1, lexer_mode 53 3 1, lexer_mode 53 3 1, lexer_mode 53 3 1, lexer_mode 53 3 1,
    lexer_mode 53 3 1, lexer_mode 53 3 1, lexer_mode 53 3 1, lexer_mode 53 3 1, lexer_mode 53 3 1,
    lexer_mode 53 3 1, lexer_mode 53 3 1, lexer_mode 53 3 1, lexer_mode 53 3 1, lexer_mode 53 3 1,
    lexer_mode 53 3 1, lexer_mode 53 3 1, lexer_mode 53 3 1, lexer_mode 53 3 1, lexer_mode 53 3 1,
    lexer_mode 53 3 1, lexer_mode 53 3 1, lexer_mode 53 3 1, lexer_mode 53 3 1, lexer_mode 53 3 1,
    lexer_mode 53 3 1, lexer_mode 53 3 1, lexer_mode 53 3 1, lexer_mode 53 3 1, lexer_mode 53 3 1,
    lexer_mode 53 3 1, lexer_mode 53 3 1, lexer_mode 53 3 1, lexer_mode 53 3 1, lexer_mode 53 3 1,
    lexer_mode 53 3 1, lexer_mode 53 3 1, lexer_mode 53 3 1, lexer_mode 53 3 1, lexer_mode 53 3 1,
    lexer_mode 53 3 1, lexer_mode 53 3 1, lexer_mode 53 3 1, lexer_mode 53 3 1, lexer_mode 53 3 1,
    lexer_mode 53 3 1, lexer_mode 53 3 1, lexer_mode 53 3 1, lexer_mode 53 3 1, lexer_mode 53 3 1,
    lexer_mode 53 3 1, lexer_mode 53 3 1, lexer_mode 53 3 1, lexer_mode 53 3 1, lexer_mode 53 3 1,
    lexer_mode 53 3 1, lexer_mode 53 3 1, lexer_mode 53 3 1, lexer_mode 53 3 1, lexer_mode 53 3 1]"

definition ts_lex_modes_2 :: "TSLexerMode list" where "ts_lex_modes_2 = [
    lexer_mode 53 3 1, lexer_mode 53 3 1, lexer_mode 53 3 1, lexer_mode 53 3 1, lexer_mode 53 3 1,
    lexer_mode 53 3 1, lexer_mode 53 3 1, lexer_mode 53 3 1, lexer_mode 53 3 1, lexer_mode 53 3 1,
    lexer_mode 53 3 1, lexer_mode 53 3 1, lexer_mode 53 3 1, lexer_mode 53 3 1, lexer_mode 53 3 1,
    lexer_mode 53 3 1, lexer_mode 53 3 1, lexer_mode 53 3 1, lexer_mode 53 3 1, lexer_mode 53 3 1,
    lexer_mode 53 3 1, lexer_mode 53 3 1, lexer_mode 53 3 1, lexer_mode 53 3 1, lexer_mode 53 3 1,
    lexer_mode 53 3 1, lexer_mode 53 3 1, lexer_mode 53 3 1, lexer_mode 53 3 1, lexer_mode 53 3 1,
    lexer_mode 53 3 1, lexer_mode 53 3 1, lexer_mode 53 3 1, lexer_mode 53 3 1, lexer_mode 53 3 1,
    lexer_mode 53 3 1, lexer_mode 53 3 1, lexer_mode 53 3 1, lexer_mode 53 3 1, lexer_mode 53 3 1,
    lexer_mode 53 3 1, lexer_mode 53 3 1, lexer_mode 53 3 1, lexer_mode 53 3 1, lexer_mode 53 3 1,
    lexer_mode 53 3 1, lexer_mode 53 3 1, lexer_mode 53 3 1, lexer_mode 53 3 1, lexer_mode 53 3 1,
    lexer_mode 53 3 1, lexer_mode 53 3 1, lexer_mode 53 3 1, lexer_mode 53 3 1, lexer_mode 53 3 1,
    lexer_mode 53 3 1, lexer_mode 53 3 1, lexer_mode 53 3 1, lexer_mode 53 3 1, lexer_mode 53 3 1,
    lexer_mode 53 3 1, lexer_mode 53 3 1, lexer_mode 53 3 1, lexer_mode 53 3 1, lexer_mode 53 3 1,
    lexer_mode 53 3 1, lexer_mode 53 3 1, lexer_mode 53 3 1, lexer_mode 53 3 1, lexer_mode 53 3 1,
    lexer_mode 53 3 1, lexer_mode 53 3 1, lexer_mode 53 3 1, lexer_mode 53 3 1, lexer_mode 53 3 1,
    lexer_mode 53 3 1, lexer_mode 53 3 1, lexer_mode 53 3 1, lexer_mode 53 3 1, lexer_mode 53 3 1,
    lexer_mode 53 3 1, lexer_mode 53 3 1, lexer_mode 53 3 1, lexer_mode 53 3 1, lexer_mode 53 3 1,
    lexer_mode 53 3 1, lexer_mode 53 3 1, lexer_mode 53 3 1, lexer_mode 53 3 1, lexer_mode 53 3 1,
    lexer_mode 53 3 1, lexer_mode 53 3 1, lexer_mode 53 3 1, lexer_mode 53 3 1, lexer_mode 53 3 1,
    lexer_mode 53 3 1, lexer_mode 53 3 1, lexer_mode 53 3 1, lexer_mode 53 3 1, lexer_mode 53 3 1,
    lexer_mode 53 3 1, lexer_mode 53 3 1, lexer_mode 53 3 1, lexer_mode 53 3 1, lexer_mode 53 3 1,
    lexer_mode 53 3 1, lexer_mode 53 3 1, lexer_mode 53 3 1, lexer_mode 53 3 1, lexer_mode 53 3 1,
    lexer_mode 53 3 1, lexer_mode 53 3 1, lexer_mode 53 3 1, lexer_mode 53 3 1, lexer_mode 53 3 1,
    lexer_mode 53 3 1, lexer_mode 53 3 1, lexer_mode 53 3 1, lexer_mode 53 3 1, lexer_mode 53 3 1,
    lexer_mode 53 3 1, lexer_mode 53 3 1, lexer_mode 53 3 1, lexer_mode 53 3 1, lexer_mode 53 3 1,
    lexer_mode 53 3 1, lexer_mode 53 3 1, lexer_mode 53 3 1, lexer_mode 53 3 1, lexer_mode 53 3 1,
    lexer_mode 53 3 1, lexer_mode 53 3 1, lexer_mode 53 3 1, lexer_mode 53 3 1, lexer_mode 53 3 1,
    lexer_mode 53 3 1, lexer_mode 53 3 1, lexer_mode 53 3 1, lexer_mode 53 3 1, lexer_mode 53 3 1,
    lexer_mode 53 3 1, lexer_mode 53 3 1, lexer_mode 53 3 1, lexer_mode 53 3 1, lexer_mode 53 3 1,
    lexer_mode 53 3 1, lexer_mode 53 3 1, lexer_mode 53 3 1, lexer_mode 53 3 1, lexer_mode 53 3 1]"

definition ts_lex_modes_3 :: "TSLexerMode list" where "ts_lex_modes_3 = [
    lexer_mode 53 3 1, lexer_mode 53 3 1, lexer_mode 53 3 1, lexer_mode 53 3 1, lexer_mode 53 3 1,
    lexer_mode 53 3 1, lexer_mode 53 3 1, lexer_mode 53 3 1, lexer_mode 53 3 1, lexer_mode 53 3 1,
    lexer_mode 53 3 1, lexer_mode 53 3 1, lexer_mode 53 3 1, lexer_mode 53 3 1, lexer_mode 53 3 1,
    lexer_mode 53 3 1, lexer_mode 53 3 1, lexer_mode 53 3 1, lexer_mode 53 3 1, lexer_mode 53 3 1,
    lexer_mode 53 3 1, lexer_mode 53 3 1, lexer_mode 53 3 1, lexer_mode 53 3 1, lexer_mode 53 3 1,
    lexer_mode 53 3 1, lexer_mode 53 3 1, lexer_mode 53 3 1, lexer_mode 53 3 1, lexer_mode 53 3 1,
    lexer_mode 53 3 1, lexer_mode 53 3 1, lexer_mode 53 3 1, lexer_mode 53 3 1, lexer_mode 53 3 1,
    lexer_mode 53 3 2, lexer_mode 53 3 1, lexer_mode 53 3 1, lexer_mode 53 3 1, lexer_mode 53 3 1,
    lexer_mode 53 3 1, lexer_mode 53 3 1, lexer_mode 53 3 1, lexer_mode 53 3 1, lexer_mode 53 3 1,
    lexer_mode 53 3 1, lexer_mode 53 3 1, lexer_mode 53 3 1, lexer_mode 53 3 1, lexer_mode 53 3 1,
    lexer_mode 53 3 1, lexer_mode 53 3 1, lexer_mode 53 3 1, lexer_mode 53 3 1, lexer_mode 53 3 1,
    lexer_mode 53 3 1, lexer_mode 53 3 1, lexer_mode 53 3 1, lexer_mode 53 3 1, lexer_mode 53 3 1,
    lexer_mode 53 3 1, lexer_mode 53 3 1, lexer_mode 53 3 1, lexer_mode 53 3 1, lexer_mode 53 3 1,
    lexer_mode 53 3 1, lexer_mode 53 3 1, lexer_mode 53 3 1, lexer_mode 53 3 1, lexer_mode 53 3 1,
    lexer_mode 53 3 1, lexer_mode 53 3 1, lexer_mode 53 3 1, lexer_mode 53 3 1, lexer_mode 53 3 1,
    lexer_mode 53 3 1, lexer_mode 53 3 1, lexer_mode 53 3 1, lexer_mode 53 3 1, lexer_mode 53 3 1,
    lexer_mode 53 3 1, lexer_mode 53 3 1, lexer_mode 53 3 1, lexer_mode 53 3 1, lexer_mode 53 3 1,
    lexer_mode 53 3 1, lexer_mode 53 3 1, lexer_mode 53 3 1, lexer_mode 53 3 1, lexer_mode 53 3 1,
    lexer_mode 53 3 1, lexer_mode 53 3 1, lexer_mode 53 3 1, lexer_mode 53 3 1, lexer_mode 53 3 1,
    lexer_mode 53 3 1, lexer_mode 53 3 1, lexer_mode 53 3 1, lexer_mode 53 3 1, lexer_mode 53 3 1,
    lexer_mode 53 3 1, lexer_mode 53 3 1, lexer_mode 53 3 1, lexer_mode 53 3 1, lexer_mode 53 3 1,
    lexer_mode 53 3 1, lexer_mode 53 3 1, lexer_mode 53 3 1, lexer_mode 53 3 1, lexer_mode 53 3 1,
    lexer_mode 53 3 1, lexer_mode 53 3 1, lexer_mode 53 3 1, lexer_mode 53 3 1, lexer_mode 53 3 1,
    lexer_mode 53 3 1, lexer_mode 53 3 1, lexer_mode 53 3 1, lexer_mode 53 3 1, lexer_mode 53 3 1,
    lexer_mode 53 3 1, lexer_mode 53 3 1, lexer_mode 53 3 1, lexer_mode 53 3 1, lexer_mode 53 3 1,
    lexer_mode 53 3 1, lexer_mode 53 3 1, lexer_mode 53 3 1, lexer_mode 53 3 1, lexer_mode 53 3 1,
    lexer_mode 53 3 1, lexer_mode 53 3 1, lexer_mode 53 3 1, lexer_mode 53 3 1, lexer_mode 53 3 1,
    lexer_mode 53 3 1, lexer_mode 53 3 1, lexer_mode 53 3 1, lexer_mode 53 3 1, lexer_mode 53 3 1,
    lexer_mode 53 3 1, lexer_mode 53 3 1, lexer_mode 53 3 1, lexer_mode 53 3 1, lexer_mode 53 3 1,
    lexer_mode 53 3 1, lexer_mode 53 3 1, lexer_mode 53 3 1, lexer_mode 53 3 1, lexer_mode 53 3 1]"

definition ts_lex_modes_4 :: "TSLexerMode list" where "ts_lex_modes_4 = [
    lexer_mode 53 3 1, lexer_mode 53 3 1, lexer_mode 53 3 1, lexer_mode 53 3 1, lexer_mode 53 3 1,
    lexer_mode 53 3 1, lexer_mode 53 3 1, lexer_mode 53 3 1, lexer_mode 53 3 1, lexer_mode 53 3 1,
    lexer_mode 53 3 1, lexer_mode 53 3 1, lexer_mode 53 3 1, lexer_mode 53 3 1, lexer_mode 53 3 1,
    lexer_mode 53 3 1, lexer_mode 53 3 1, lexer_mode 53 3 1, lexer_mode 53 3 1, lexer_mode 53 3 1,
    lexer_mode 53 3 1, lexer_mode 53 3 1, lexer_mode 53 3 1, lexer_mode 53 3 1, lexer_mode 53 3 1,
    lexer_mode 53 3 1, lexer_mode 53 3 1, lexer_mode 53 3 1, lexer_mode 53 3 1, lexer_mode 53 3 1,
    lexer_mode 53 3 1, lexer_mode 53 3 1, lexer_mode 53 3 1, lexer_mode 53 3 1, lexer_mode 53 3 1,
    lexer_mode 53 3 1, lexer_mode 53 3 1, lexer_mode 53 3 1, lexer_mode 53 3 1, lexer_mode 53 3 1,
    lexer_mode 53 3 1, lexer_mode 53 3 1, lexer_mode 53 3 1, lexer_mode 53 3 1, lexer_mode 53 3 1,
    lexer_mode 53 3 1, lexer_mode 53 3 1, lexer_mode 53 3 1, lexer_mode 53 3 1, lexer_mode 53 3 1,
    lexer_mode 53 3 1, lexer_mode 53 3 1, lexer_mode 53 3 1, lexer_mode 53 3 1, lexer_mode 53 3 1,
    lexer_mode 53 3 1, lexer_mode 53 3 1, lexer_mode 53 3 1, lexer_mode 53 3 1, lexer_mode 53 3 1,
    lexer_mode 53 3 1, lexer_mode 53 3 1, lexer_mode 53 3 1, lexer_mode 53 3 1, lexer_mode 53 3 1,
    lexer_mode 53 3 1, lexer_mode 53 3 1, lexer_mode 53 3 1, lexer_mode 53 3 1, lexer_mode 53 3 1,
    lexer_mode 53 3 1, lexer_mode 53 3 1, lexer_mode 53 3 1, lexer_mode 53 3 1, lexer_mode 53 3 1,
    lexer_mode 53 3 1, lexer_mode 53 3 1, lexer_mode 53 3 1, lexer_mode 53 3 1, lexer_mode 53 3 1,
    lexer_mode 53 3 1, lexer_mode 53 3 1, lexer_mode 53 3 1, lexer_mode 53 3 1, lexer_mode 53 3 1,
    lexer_mode 53 3 1, lexer_mode 53 3 1, lexer_mode 53 3 1, lexer_mode 53 3 1, lexer_mode 53 3 1,
    lexer_mode 53 3 1, lexer_mode 53 3 1, lexer_mode 53 3 1, lexer_mode 53 3 1, lexer_mode 53 3 1,
    lexer_mode 53 3 1, lexer_mode 53 3 1, lexer_mode 53 3 1, lexer_mode 53 3 1, lexer_mode 53 3 1,
    lexer_mode 53 3 1, lexer_mode 53 3 1, lexer_mode 53 3 1, lexer_mode 53 3 1, lexer_mode 53 3 1,
    lexer_mode 53 3 1, lexer_mode 53 3 1, lexer_mode 53 3 1, lexer_mode 53 3 1, lexer_mode 53 3 1,
    lexer_mode 53 3 1, lexer_mode 53 3 1, lexer_mode 53 3 1, lexer_mode 53 3 1, lexer_mode 53 3 1,
    lexer_mode 53 3 1, lexer_mode 53 3 1, lexer_mode 53 3 1, lexer_mode 53 3 1, lexer_mode 53 3 1,
    lexer_mode 53 3 1, lexer_mode 53 3 1, lexer_mode 53 3 1, lexer_mode 53 3 1, lexer_mode 53 3 1,
    lexer_mode 53 3 1, lexer_mode 53 3 1, lexer_mode 53 3 1, lexer_mode 53 3 1, lexer_mode 53 3 1,
    lexer_mode 53 3 1, lexer_mode 53 3 1, lexer_mode 53 3 1, lexer_mode 53 3 1, lexer_mode 53 3 1,
    lexer_mode 53 3 1, lexer_mode 53 3 1, lexer_mode 53 3 1, lexer_mode 53 3 1, lexer_mode 53 3 1,
    lexer_mode 53 3 1, lexer_mode 53 3 1, lexer_mode 53 3 1, lexer_mode 53 3 1, lexer_mode 53 3 1,
    lexer_mode 53 3 1, lexer_mode 53 3 1, lexer_mode 53 3 1, lexer_mode 53 3 1, lexer_mode 53 3 1]"

definition ts_lex_modes_5 :: "TSLexerMode list" where "ts_lex_modes_5 = [
    lexer_mode 53 3 1, lexer_mode 53 3 1, lexer_mode 53 3 1, lexer_mode 53 3 1, lexer_mode 53 3 1,
    lexer_mode 53 3 1, lexer_mode 53 3 1, lexer_mode 53 3 1, lexer_mode 53 3 1, lexer_mode 53 3 1,
    lexer_mode 53 3 1, lexer_mode 53 3 1, lexer_mode 53 3 1, lexer_mode 53 3 1, lexer_mode 53 3 1,
    lexer_mode 53 3 1, lexer_mode 53 3 1, lexer_mode 53 3 1, lexer_mode 53 3 1, lexer_mode 53 3 1,
    lexer_mode 53 3 1, lexer_mode 53 3 1, lexer_mode 53 3 1, lexer_mode 53 3 1, lexer_mode 53 3 1,
    lexer_mode 53 3 1, lexer_mode 53 3 1, lexer_mode 53 3 1, lexer_mode 53 3 1, lexer_mode 53 3 1,
    lexer_mode 53 3 1, lexer_mode 53 3 1, lexer_mode 53 3 1, lexer_mode 53 3 1, lexer_mode 53 3 1,
    lexer_mode 53 3 1, lexer_mode 53 3 1, lexer_mode 53 3 1, lexer_mode 53 3 1, lexer_mode 53 3 1,
    lexer_mode 53 3 1, lexer_mode 53 3 1, lexer_mode 53 3 1, lexer_mode 53 3 1, lexer_mode 53 3 1,
    lexer_mode 53 3 1, lexer_mode 53 3 1, lexer_mode 53 3 1, lexer_mode 53 3 1, lexer_mode 53 3 1,
    lexer_mode 53 3 1, lexer_mode 53 3 1, lexer_mode 53 3 1, lexer_mode 53 3 1, lexer_mode 53 3 1,
    lexer_mode 53 3 1, lexer_mode 53 3 1, lexer_mode 53 3 1, lexer_mode 53 3 1, lexer_mode 53 3 1,
    lexer_mode 53 3 1, lexer_mode 53 3 1, lexer_mode 53 3 1, lexer_mode 53 3 1, lexer_mode 53 3 1,
    lexer_mode 53 3 1, lexer_mode 53 3 1, lexer_mode 53 3 1, lexer_mode 53 3 1, lexer_mode 53 3 1,
    lexer_mode 53 3 1, lexer_mode 53 3 1, lexer_mode 53 3 1, lexer_mode 53 3 1, lexer_mode 53 3 1,
    lexer_mode 53 3 1, lexer_mode 53 3 1, lexer_mode 53 3 1, lexer_mode 53 3 1, lexer_mode 53 3 1,
    lexer_mode 53 3 1, lexer_mode 53 3 1, lexer_mode 53 3 1, lexer_mode 53 3 1, lexer_mode 53 3 1,
    lexer_mode 53 3 1, lexer_mode 53 3 1, lexer_mode 53 3 1, lexer_mode 53 3 1, lexer_mode 53 3 1,
    lexer_mode 53 3 1, lexer_mode 53 3 1, lexer_mode 53 3 1, lexer_mode 53 3 1, lexer_mode 53 3 1,
    lexer_mode 53 3 1, lexer_mode 53 3 1, lexer_mode 53 3 1, lexer_mode 53 3 1, lexer_mode 53 3 1,
    lexer_mode 53 3 1, lexer_mode 53 3 1, lexer_mode 53 3 1, lexer_mode 53 3 1, lexer_mode 53 3 1,
    lexer_mode 53 3 1, lexer_mode 53 3 1, lexer_mode 53 3 1, lexer_mode 53 3 1, lexer_mode 53 3 1,
    lexer_mode 53 3 1, lexer_mode 53 3 1, lexer_mode 53 3 1, lexer_mode 53 3 1, lexer_mode 53 3 1,
    lexer_mode 53 3 1, lexer_mode 53 3 1, lexer_mode 53 3 1, lexer_mode 53 3 1, lexer_mode 53 3 1,
    lexer_mode 53 3 1, lexer_mode 53 3 1, lexer_mode 53 3 1, lexer_mode 53 3 1, lexer_mode 53 3 1,
    lexer_mode 53 3 1, lexer_mode 53 3 1, lexer_mode 53 3 1, lexer_mode 53 3 1, lexer_mode 53 3 1,
    lexer_mode 53 3 1, lexer_mode 53 3 1, lexer_mode 53 3 1, lexer_mode 53 3 1, lexer_mode 53 3 1,
    lexer_mode 53 3 1, lexer_mode 53 3 1, lexer_mode 53 3 1, lexer_mode 53 3 1, lexer_mode 53 3 1,
    lexer_mode 53 3 1, lexer_mode 53 3 1, lexer_mode 53 3 1, lexer_mode 53 3 1, lexer_mode 53 3 1,
    lexer_mode 53 3 1, lexer_mode 53 3 1, lexer_mode 53 3 1, lexer_mode 53 3 1, lexer_mode 53 3 1]"

definition ts_lex_modes_6 :: "TSLexerMode list" where "ts_lex_modes_6 = [
    lexer_mode 53 3 1, lexer_mode 53 3 1, lexer_mode 53 3 1, lexer_mode 53 3 1, lexer_mode 53 3 1,
    lexer_mode 53 3 1, lexer_mode 53 3 1, lexer_mode 53 3 1, lexer_mode 53 3 1, lexer_mode 53 3 1,
    lexer_mode 53 3 1, lexer_mode 53 3 1, lexer_mode 53 3 1, lexer_mode 53 3 1, lexer_mode 53 3 1,
    lexer_mode 53 3 1, lexer_mode 53 3 1, lexer_mode 53 3 1, lexer_mode 53 3 1, lexer_mode 53 3 1,
    lexer_mode 53 3 1, lexer_mode 53 2 1, lexer_mode 53 3 1, lexer_mode 53 2 1, lexer_mode 53 3 1,
    lexer_mode 53 3 2, lexer_mode 53 3 1, lexer_mode 53 3 2, lexer_mode 53 3 1, lexer_mode 4 4 1,
    lexer_mode 4 4 1, lexer_mode 4 4 1, lexer_mode 4 4 1, lexer_mode 4 4 1, lexer_mode 4 4 1,
    lexer_mode 4 4 1, lexer_mode 4 4 1, lexer_mode 4 4 1, lexer_mode 4 4 1, lexer_mode 4 4 1,
    lexer_mode 4 4 1, lexer_mode 4 4 1, lexer_mode 4 4 1, lexer_mode 4 4 1, lexer_mode 4 4 1,
    lexer_mode 4 4 1, lexer_mode 4 4 1, lexer_mode 4 4 1, lexer_mode 4 4 1, lexer_mode 4 4 1,
    lexer_mode 4 4 1, lexer_mode 4 4 1, lexer_mode 4 4 1, lexer_mode 4 4 1, lexer_mode 4 4 1,
    lexer_mode 4 4 1, lexer_mode 4 4 1, lexer_mode 4 4 1, lexer_mode 4 4 1, lexer_mode 4 4 1,
    lexer_mode 4 4 1, lexer_mode 4 4 1, lexer_mode 4 4 1, lexer_mode 4 4 1, lexer_mode 4 4 1,
    lexer_mode 4 4 1, lexer_mode 4 4 1, lexer_mode 4 4 1, lexer_mode 4 4 1, lexer_mode 4 4 1,
    lexer_mode 4 4 1, lexer_mode 4 4 1, lexer_mode 4 4 1, lexer_mode 4 4 1, lexer_mode 4 4 1,
    lexer_mode 4 4 1, lexer_mode 4 4 1, lexer_mode 4 4 1, lexer_mode 4 4 1, lexer_mode 4 4 1,
    lexer_mode 4 4 1, lexer_mode 4 4 1, lexer_mode 4 4 1, lexer_mode 4 4 1, lexer_mode 4 4 1,
    lexer_mode 4 4 1, lexer_mode 4 4 1, lexer_mode 4 4 1, lexer_mode 4 4 1, lexer_mode 4 4 1,
    lexer_mode 4 4 1, lexer_mode 4 4 1, lexer_mode 4 4 1, lexer_mode 4 4 1, lexer_mode 4 4 1,
    lexer_mode 4 4 1, lexer_mode 4 4 1, lexer_mode 4 4 1, lexer_mode 4 4 1, lexer_mode 4 4 1,
    lexer_mode 4 4 1, lexer_mode 4 4 1, lexer_mode 4 4 1, lexer_mode 4 4 1, lexer_mode 4 4 1,
    lexer_mode 4 4 1, lexer_mode 4 4 1, lexer_mode 4 4 1, lexer_mode 4 4 1, lexer_mode 4 4 1,
    lexer_mode 4 4 1, lexer_mode 4 4 1, lexer_mode 4 4 1, lexer_mode 4 4 1, lexer_mode 4 4 1,
    lexer_mode 4 4 1, lexer_mode 4 4 1, lexer_mode 4 4 1, lexer_mode 4 4 1, lexer_mode 4 4 1,
    lexer_mode 4 4 1, lexer_mode 4 4 1, lexer_mode 4 4 1, lexer_mode 4 4 1, lexer_mode 4 4 1,
    lexer_mode 4 4 1, lexer_mode 4 4 1, lexer_mode 4 4 1, lexer_mode 4 4 1, lexer_mode 4 4 1,
    lexer_mode 4 4 1, lexer_mode 4 4 1, lexer_mode 4 4 1, lexer_mode 4 4 1, lexer_mode 4 4 1,
    lexer_mode 4 4 1, lexer_mode 4 4 1, lexer_mode 4 4 1, lexer_mode 4 4 1, lexer_mode 4 4 1,
    lexer_mode 4 4 1, lexer_mode 4 4 1, lexer_mode 4 4 1, lexer_mode 4 4 1, lexer_mode 4 4 1,
    lexer_mode 4 4 1, lexer_mode 4 4 1, lexer_mode 4 4 1, lexer_mode 4 4 1, lexer_mode 4 4 1]"

definition ts_lex_modes_7 :: "TSLexerMode list" where "ts_lex_modes_7 = [
    lexer_mode 4 4 1, lexer_mode 4 4 1, lexer_mode 4 4 1, lexer_mode 4 4 1, lexer_mode 4 4 1,
    lexer_mode 4 4 1, lexer_mode 4 4 1, lexer_mode 4 4 1, lexer_mode 4 4 1, lexer_mode 4 4 1,
    lexer_mode 4 4 1, lexer_mode 4 4 1, lexer_mode 4 4 1, lexer_mode 4 4 1, lexer_mode 4 4 1,
    lexer_mode 4 4 1, lexer_mode 4 4 1, lexer_mode 4 4 1, lexer_mode 4 4 1, lexer_mode 4 4 1,
    lexer_mode 4 4 1, lexer_mode 4 4 1, lexer_mode 4 4 1, lexer_mode 4 4 1, lexer_mode 4 4 1,
    lexer_mode 4 4 1, lexer_mode 4 4 1, lexer_mode 4 4 1, lexer_mode 4 4 1, lexer_mode 4 4 1,
    lexer_mode 4 4 1, lexer_mode 4 4 1, lexer_mode 4 4 1, lexer_mode 4 4 1, lexer_mode 4 4 1,
    lexer_mode 4 4 1, lexer_mode 4 4 1, lexer_mode 4 4 1, lexer_mode 4 4 1, lexer_mode 4 4 1,
    lexer_mode 4 4 1, lexer_mode 4 4 1, lexer_mode 4 4 1, lexer_mode 4 4 1, lexer_mode 4 4 1,
    lexer_mode 4 4 1, lexer_mode 4 4 1, lexer_mode 4 4 1, lexer_mode 4 4 1, lexer_mode 4 4 1,
    lexer_mode 4 4 1, lexer_mode 4 4 1, lexer_mode 4 4 1, lexer_mode 4 4 1, lexer_mode 4 4 1,
    lexer_mode 4 4 1, lexer_mode 4 4 1, lexer_mode 4 4 1, lexer_mode 4 4 1, lexer_mode 4 4 1,
    lexer_mode 4 4 1, lexer_mode 4 4 1, lexer_mode 4 4 1, lexer_mode 4 4 1, lexer_mode 4 4 1,
    lexer_mode 4 4 1, lexer_mode 4 4 1, lexer_mode 4 4 1, lexer_mode 4 4 1, lexer_mode 4 4 1,
    lexer_mode 4 4 1, lexer_mode 4 4 1, lexer_mode 4 4 1, lexer_mode 4 4 1, lexer_mode 4 4 1,
    lexer_mode 4 4 1, lexer_mode 4 4 1, lexer_mode 4 4 1, lexer_mode 4 4 1, lexer_mode 4 4 1,
    lexer_mode 4 4 1, lexer_mode 4 4 1, lexer_mode 4 4 1, lexer_mode 4 4 1, lexer_mode 4 4 1,
    lexer_mode 4 4 1, lexer_mode 4 4 1, lexer_mode 4 4 1, lexer_mode 4 4 1, lexer_mode 4 4 1,
    lexer_mode 4 4 1, lexer_mode 4 4 1, lexer_mode 4 4 1, lexer_mode 4 4 1, lexer_mode 4 4 1,
    lexer_mode 4 4 1, lexer_mode 4 4 1, lexer_mode 4 4 1, lexer_mode 4 4 1, lexer_mode 4 4 1,
    lexer_mode 4 4 1, lexer_mode 4 4 1, lexer_mode 4 4 1, lexer_mode 4 4 1, lexer_mode 4 4 1,
    lexer_mode 4 4 1, lexer_mode 4 4 1, lexer_mode 4 4 1, lexer_mode 4 4 1, lexer_mode 4 4 1,
    lexer_mode 4 4 1, lexer_mode 4 4 1, lexer_mode 4 4 1, lexer_mode 4 4 1, lexer_mode 4 4 1,
    lexer_mode 4 4 1, lexer_mode 4 4 1, lexer_mode 4 4 1, lexer_mode 4 4 1, lexer_mode 4 4 1,
    lexer_mode 4 4 1, lexer_mode 4 4 1, lexer_mode 4 4 1, lexer_mode 4 4 1, lexer_mode 4 4 1,
    lexer_mode 4 4 1, lexer_mode 4 4 1, lexer_mode 4 4 1, lexer_mode 4 4 1, lexer_mode 4 4 1,
    lexer_mode 4 4 1, lexer_mode 4 4 1, lexer_mode 4 4 1, lexer_mode 4 4 1, lexer_mode 4 4 1,
    lexer_mode 4 4 1, lexer_mode 4 4 1, lexer_mode 4 4 1, lexer_mode 4 4 1, lexer_mode 4 4 1,
    lexer_mode 4 4 1, lexer_mode 4 4 1, lexer_mode 4 4 1, lexer_mode 4 4 1, lexer_mode 4 4 1,
    lexer_mode 4 4 1, lexer_mode 4 4 1, lexer_mode 4 4 1, lexer_mode 4 4 1, lexer_mode 4 4 1]"

definition ts_lex_modes_8 :: "TSLexerMode list" where "ts_lex_modes_8 = [
    lexer_mode 4 4 1, lexer_mode 4 4 1, lexer_mode 4 4 1, lexer_mode 4 4 1, lexer_mode 4 4 1,
    lexer_mode 4 4 1, lexer_mode 4 4 1, lexer_mode 4 4 1, lexer_mode 4 4 1, lexer_mode 4 4 1,
    lexer_mode 4 4 1, lexer_mode 4 4 1, lexer_mode 4 4 1, lexer_mode 4 4 1, lexer_mode 5 5 1,
    lexer_mode 4 4 1, lexer_mode 4 4 1, lexer_mode 4 4 1, lexer_mode 5 5 1, lexer_mode 5 5 1,
    lexer_mode 53 4 1, lexer_mode 5 5 1, lexer_mode 53 4 1, lexer_mode 53 4 1, lexer_mode 53 4 1,
    lexer_mode 53 4 1, lexer_mode 53 4 1, lexer_mode 53 4 1, lexer_mode 53 4 1, lexer_mode 53 4 1,
    lexer_mode 53 4 1, lexer_mode 53 4 1, lexer_mode 53 4 1, lexer_mode 53 4 1, lexer_mode 53 4 1,
    lexer_mode 53 4 1, lexer_mode 53 4 1, lexer_mode 53 4 1, lexer_mode 53 4 1, lexer_mode 53 4 1,
    lexer_mode 53 4 1, lexer_mode 53 4 1, lexer_mode 53 4 1, lexer_mode 53 4 3, lexer_mode 53 4 1,
    lexer_mode 53 4 1, lexer_mode 53 4 1, lexer_mode 53 4 1, lexer_mode 53 4 1, lexer_mode 53 4 1,
    lexer_mode 53 4 1, lexer_mode 53 4 1, lexer_mode 53 4 1, lexer_mode 53 4 1, lexer_mode 53 4 1,
    lexer_mode 53 4 1, lexer_mode 53 4 1, lexer_mode 53 4 1, lexer_mode 53 4 1, lexer_mode 53 4 1,
    lexer_mode 53 4 1, lexer_mode 53 4 1, lexer_mode 53 4 1, lexer_mode 53 4 1, lexer_mode 53 4 1,
    lexer_mode 53 4 1, lexer_mode 53 4 1, lexer_mode 53 4 1, lexer_mode 53 4 1, lexer_mode 53 4 1,
    lexer_mode 53 4 1, lexer_mode 53 4 1, lexer_mode 53 4 1, lexer_mode 53 4 1, lexer_mode 53 4 1,
    lexer_mode 53 4 1, lexer_mode 53 4 1, lexer_mode 53 4 1, lexer_mode 53 4 1, lexer_mode 53 4 1,
    lexer_mode 53 4 1, lexer_mode 53 4 1, lexer_mode 53 4 1, lexer_mode 53 4 1, lexer_mode 53 4 1,
    lexer_mode 53 4 1, lexer_mode 53 4 1, lexer_mode 53 4 1, lexer_mode 53 4 1, lexer_mode 53 4 1,
    lexer_mode 53 4 1, lexer_mode 53 4 1, lexer_mode 53 4 1, lexer_mode 53 4 1, lexer_mode 53 4 1,
    lexer_mode 53 4 1, lexer_mode 53 4 1, lexer_mode 53 4 1, lexer_mode 53 4 1, lexer_mode 53 4 1,
    lexer_mode 53 4 1, lexer_mode 53 4 1, lexer_mode 53 4 1, lexer_mode 53 4 1, lexer_mode 53 4 1,
    lexer_mode 53 4 1, lexer_mode 53 4 1, lexer_mode 53 4 1, lexer_mode 53 4 1, lexer_mode 53 4 1,
    lexer_mode 53 4 1, lexer_mode 53 4 1, lexer_mode 53 4 1, lexer_mode 53 4 1, lexer_mode 53 4 1,
    lexer_mode 53 4 1, lexer_mode 53 4 1, lexer_mode 53 4 1, lexer_mode 53 4 1, lexer_mode 53 4 1,
    lexer_mode 53 4 1, lexer_mode 53 4 1, lexer_mode 53 4 1, lexer_mode 53 4 1, lexer_mode 53 4 1,
    lexer_mode 53 4 1, lexer_mode 53 4 1, lexer_mode 53 4 1, lexer_mode 53 4 1, lexer_mode 53 4 1,
    lexer_mode 53 4 1, lexer_mode 53 4 1, lexer_mode 53 4 1, lexer_mode 53 4 1, lexer_mode 53 4 1,
    lexer_mode 53 4 1, lexer_mode 53 4 1, lexer_mode 53 4 1, lexer_mode 53 4 1, lexer_mode 53 4 1,
    lexer_mode 53 4 1, lexer_mode 53 4 1, lexer_mode 53 4 1, lexer_mode 53 4 1, lexer_mode 53 4 1,
    lexer_mode 53 4 1, lexer_mode 53 4 1, lexer_mode 53 4 1, lexer_mode 53 4 1, lexer_mode 53 4 1]"

definition ts_lex_modes_9 :: "TSLexerMode list" where "ts_lex_modes_9 = [
    lexer_mode 53 4 1, lexer_mode 53 4 1, lexer_mode 53 4 1, lexer_mode 53 4 1, lexer_mode 53 4 1,
    lexer_mode 53 4 1, lexer_mode 53 4 1, lexer_mode 53 4 1, lexer_mode 53 4 1, lexer_mode 53 4 1,
    lexer_mode 53 4 1, lexer_mode 53 4 1, lexer_mode 53 4 1, lexer_mode 53 4 1, lexer_mode 53 4 1,
    lexer_mode 53 4 1, lexer_mode 53 4 1, lexer_mode 53 4 1, lexer_mode 53 4 1, lexer_mode 53 4 1,
    lexer_mode 53 4 1, lexer_mode 53 4 1, lexer_mode 53 4 1, lexer_mode 53 4 1, lexer_mode 53 4 1,
    lexer_mode 53 4 1, lexer_mode 53 4 1, lexer_mode 53 4 1, lexer_mode 53 4 1, lexer_mode 53 4 1,
    lexer_mode 53 4 1, lexer_mode 53 4 1, lexer_mode 53 4 1, lexer_mode 53 4 1, lexer_mode 53 4 1,
    lexer_mode 53 4 1, lexer_mode 53 4 1, lexer_mode 53 4 1, lexer_mode 53 4 1, lexer_mode 53 4 1,
    lexer_mode 53 4 1, lexer_mode 53 4 1, lexer_mode 53 4 1, lexer_mode 53 4 1, lexer_mode 53 4 1,
    lexer_mode 53 4 1, lexer_mode 53 4 1, lexer_mode 53 4 1, lexer_mode 53 4 1, lexer_mode 53 4 1,
    lexer_mode 53 4 1, lexer_mode 53 4 1, lexer_mode 53 4 1, lexer_mode 53 4 1, lexer_mode 53 4 1,
    lexer_mode 53 4 1, lexer_mode 53 4 1, lexer_mode 53 4 1, lexer_mode 53 4 1, lexer_mode 53 4 1,
    lexer_mode 53 4 1, lexer_mode 53 4 1, lexer_mode 53 4 1, lexer_mode 53 4 1, lexer_mode 53 4 1,
    lexer_mode 53 4 1, lexer_mode 53 4 1, lexer_mode 53 4 1, lexer_mode 53 4 1, lexer_mode 53 4 1,
    lexer_mode 53 4 1, lexer_mode 53 4 1, lexer_mode 53 4 1, lexer_mode 53 4 1, lexer_mode 53 4 1,
    lexer_mode 53 4 1, lexer_mode 53 4 1, lexer_mode 53 4 1, lexer_mode 53 4 1, lexer_mode 53 4 1,
    lexer_mode 53 4 1, lexer_mode 53 4 1, lexer_mode 53 4 1, lexer_mode 53 4 1, lexer_mode 53 4 1,
    lexer_mode 53 4 1, lexer_mode 53 4 1, lexer_mode 53 4 1, lexer_mode 53 4 1, lexer_mode 53 4 1,
    lexer_mode 53 4 1, lexer_mode 53 4 1, lexer_mode 53 4 1, lexer_mode 53 4 1, lexer_mode 53 4 1,
    lexer_mode 53 4 1, lexer_mode 53 4 1, lexer_mode 53 4 1, lexer_mode 53 4 1, lexer_mode 53 4 1,
    lexer_mode 53 4 1, lexer_mode 53 4 1, lexer_mode 53 4 1, lexer_mode 53 4 1, lexer_mode 53 4 1,
    lexer_mode 53 4 1, lexer_mode 53 4 1, lexer_mode 53 4 1, lexer_mode 53 4 1, lexer_mode 53 4 1,
    lexer_mode 53 4 1, lexer_mode 53 4 1, lexer_mode 53 4 1, lexer_mode 53 4 1, lexer_mode 53 4 1,
    lexer_mode 53 4 1, lexer_mode 53 4 1, lexer_mode 53 4 1, lexer_mode 53 4 1, lexer_mode 53 4 1,
    lexer_mode 53 4 1, lexer_mode 53 4 1, lexer_mode 53 4 1, lexer_mode 53 4 1, lexer_mode 53 4 1,
    lexer_mode 53 4 1, lexer_mode 53 4 1, lexer_mode 53 4 1, lexer_mode 53 4 1, lexer_mode 53 4 1,
    lexer_mode 53 4 1, lexer_mode 53 4 1, lexer_mode 53 4 1, lexer_mode 53 4 1, lexer_mode 53 4 1,
    lexer_mode 53 4 1, lexer_mode 53 4 1, lexer_mode 53 4 1, lexer_mode 53 4 1, lexer_mode 53 4 1,
    lexer_mode 53 4 1, lexer_mode 53 4 1, lexer_mode 53 4 1, lexer_mode 53 4 1, lexer_mode 53 4 1,
    lexer_mode 53 4 1, lexer_mode 53 4 1, lexer_mode 53 4 1, lexer_mode 53 4 1, lexer_mode 53 4 1]"

definition ts_lex_modes_10 :: "TSLexerMode list" where "ts_lex_modes_10 = [
    lexer_mode 53 4 1, lexer_mode 53 4 1, lexer_mode 53 4 1, lexer_mode 53 4 1, lexer_mode 53 4 1,
    lexer_mode 53 4 1, lexer_mode 53 4 1, lexer_mode 53 4 1, lexer_mode 53 4 1, lexer_mode 53 4 1,
    lexer_mode 53 4 1, lexer_mode 53 4 1, lexer_mode 53 4 1, lexer_mode 53 4 1, lexer_mode 53 4 1,
    lexer_mode 53 4 1, lexer_mode 53 4 1, lexer_mode 53 4 1, lexer_mode 53 4 1, lexer_mode 53 4 1,
    lexer_mode 53 4 1, lexer_mode 53 4 1, lexer_mode 53 4 1, lexer_mode 53 4 1, lexer_mode 53 4 1,
    lexer_mode 53 4 1, lexer_mode 53 4 1, lexer_mode 53 4 1, lexer_mode 53 4 1, lexer_mode 53 4 1,
    lexer_mode 53 4 1, lexer_mode 53 4 1, lexer_mode 53 4 1, lexer_mode 53 4 1, lexer_mode 53 4 1,
    lexer_mode 53 4 1, lexer_mode 53 4 1, lexer_mode 53 4 1, lexer_mode 53 4 1, lexer_mode 53 4 1,
    lexer_mode 53 4 1, lexer_mode 53 4 1, lexer_mode 53 4 1, lexer_mode 53 4 1, lexer_mode 53 4 1,
    lexer_mode 53 4 1, lexer_mode 53 4 1, lexer_mode 53 4 1, lexer_mode 53 4 1, lexer_mode 53 4 1,
    lexer_mode 53 4 1, lexer_mode 53 4 1, lexer_mode 53 4 1, lexer_mode 53 4 1, lexer_mode 53 4 1,
    lexer_mode 53 4 1, lexer_mode 53 4 1, lexer_mode 53 4 1, lexer_mode 53 4 1, lexer_mode 53 4 1,
    lexer_mode 53 4 1, lexer_mode 53 4 1, lexer_mode 53 4 1, lexer_mode 53 4 1, lexer_mode 53 4 1,
    lexer_mode 53 4 1, lexer_mode 53 4 1, lexer_mode 53 4 1, lexer_mode 53 4 1, lexer_mode 53 4 1,
    lexer_mode 53 4 1, lexer_mode 53 4 1, lexer_mode 53 4 1, lexer_mode 53 4 1, lexer_mode 53 4 1,
    lexer_mode 53 4 1, lexer_mode 53 4 1, lexer_mode 53 4 1, lexer_mode 53 4 1, lexer_mode 53 4 1,
    lexer_mode 53 4 1, lexer_mode 53 4 1, lexer_mode 53 4 1, lexer_mode 53 4 1, lexer_mode 53 4 1,
    lexer_mode 53 4 1, lexer_mode 53 4 1, lexer_mode 53 4 1, lexer_mode 53 4 1, lexer_mode 53 4 1,
    lexer_mode 53 4 1, lexer_mode 53 4 1, lexer_mode 53 4 1, lexer_mode 53 4 1, lexer_mode 53 4 1,
    lexer_mode 53 4 1, lexer_mode 53 4 1, lexer_mode 53 4 1, lexer_mode 53 4 1, lexer_mode 53 4 1,
    lexer_mode 53 4 1, lexer_mode 53 4 1, lexer_mode 53 4 1, lexer_mode 53 4 1, lexer_mode 53 4 1,
    lexer_mode 53 4 1, lexer_mode 53 4 1, lexer_mode 53 4 1, lexer_mode 53 4 1, lexer_mode 53 4 1,
    lexer_mode 53 4 1, lexer_mode 53 4 1, lexer_mode 53 4 1, lexer_mode 53 4 1, lexer_mode 53 4 1,
    lexer_mode 53 4 1, lexer_mode 53 4 1, lexer_mode 53 4 1, lexer_mode 53 4 1, lexer_mode 53 4 1,
    lexer_mode 53 4 1, lexer_mode 53 4 1, lexer_mode 53 4 1, lexer_mode 53 4 1, lexer_mode 53 4 1,
    lexer_mode 53 4 1, lexer_mode 53 4 1, lexer_mode 53 4 1, lexer_mode 53 4 1, lexer_mode 53 4 1,
    lexer_mode 53 4 1, lexer_mode 53 4 1, lexer_mode 53 4 1, lexer_mode 53 4 1, lexer_mode 53 4 1,
    lexer_mode 53 4 1, lexer_mode 53 4 1, lexer_mode 53 4 1, lexer_mode 53 4 1, lexer_mode 53 4 1,
    lexer_mode 53 4 1, lexer_mode 53 4 1, lexer_mode 53 4 1, lexer_mode 53 4 1, lexer_mode 53 4 1,
    lexer_mode 53 4 1, lexer_mode 53 4 1, lexer_mode 53 4 1, lexer_mode 53 4 1, lexer_mode 53 4 1]"

definition ts_lex_modes_11 :: "TSLexerMode list" where "ts_lex_modes_11 = [
    lexer_mode 53 4 1, lexer_mode 53 4 1, lexer_mode 53 4 1, lexer_mode 53 4 1, lexer_mode 53 4 1,
    lexer_mode 53 4 1, lexer_mode 53 4 1, lexer_mode 53 4 1, lexer_mode 53 4 1, lexer_mode 53 4 1,
    lexer_mode 53 4 1, lexer_mode 53 4 1, lexer_mode 53 4 1, lexer_mode 53 4 1, lexer_mode 53 4 1,
    lexer_mode 53 4 1, lexer_mode 53 4 1, lexer_mode 53 4 1, lexer_mode 53 4 1, lexer_mode 53 4 1,
    lexer_mode 53 4 1, lexer_mode 53 4 1, lexer_mode 53 4 1, lexer_mode 53 4 1, lexer_mode 53 4 1,
    lexer_mode 53 4 1, lexer_mode 53 4 1, lexer_mode 53 4 1, lexer_mode 53 4 1, lexer_mode 53 4 1,
    lexer_mode 53 4 1, lexer_mode 53 4 1, lexer_mode 53 4 1, lexer_mode 53 4 1, lexer_mode 53 4 1,
    lexer_mode 53 4 1, lexer_mode 53 4 1, lexer_mode 53 4 1, lexer_mode 53 4 1, lexer_mode 53 4 1,
    lexer_mode 53 4 1, lexer_mode 53 4 1, lexer_mode 53 4 1, lexer_mode 53 4 1, lexer_mode 53 4 1,
    lexer_mode 53 4 1, lexer_mode 53 4 1, lexer_mode 53 4 1, lexer_mode 53 4 1, lexer_mode 53 4 1,
    lexer_mode 53 4 1, lexer_mode 53 4 1, lexer_mode 53 4 1, lexer_mode 53 4 1, lexer_mode 53 4 1,
    lexer_mode 53 4 1, lexer_mode 53 4 1, lexer_mode 53 4 1, lexer_mode 53 4 1, lexer_mode 53 4 1,
    lexer_mode 53 4 1, lexer_mode 53 4 1, lexer_mode 53 4 1, lexer_mode 53 4 1, lexer_mode 53 4 1,
    lexer_mode 53 4 1, lexer_mode 53 4 1, lexer_mode 53 4 1, lexer_mode 53 4 1, lexer_mode 53 4 1,
    lexer_mode 53 4 1, lexer_mode 53 4 1, lexer_mode 53 4 1, lexer_mode 53 4 1, lexer_mode 53 4 1,
    lexer_mode 53 4 1, lexer_mode 53 4 1, lexer_mode 53 4 1, lexer_mode 53 4 1, lexer_mode 53 4 1,
    lexer_mode 53 4 1, lexer_mode 53 4 1, lexer_mode 53 4 1, lexer_mode 53 4 1, lexer_mode 53 4 1,
    lexer_mode 53 4 1, lexer_mode 53 4 1, lexer_mode 53 4 1, lexer_mode 53 4 1, lexer_mode 53 4 1,
    lexer_mode 53 4 1, lexer_mode 53 4 1, lexer_mode 53 4 1, lexer_mode 53 4 1, lexer_mode 53 4 1,
    lexer_mode 53 4 1, lexer_mode 53 4 1, lexer_mode 53 4 1, lexer_mode 53 4 1, lexer_mode 53 4 1,
    lexer_mode 53 4 1, lexer_mode 53 4 1, lexer_mode 53 4 1, lexer_mode 53 4 1, lexer_mode 53 4 1,
    lexer_mode 53 4 1, lexer_mode 53 4 1, lexer_mode 53 4 1, lexer_mode 53 4 1, lexer_mode 53 4 1,
    lexer_mode 53 4 1, lexer_mode 53 4 1, lexer_mode 53 4 1, lexer_mode 53 4 1, lexer_mode 53 4 1,
    lexer_mode 53 4 1, lexer_mode 53 4 1, lexer_mode 53 4 1, lexer_mode 53 4 1, lexer_mode 53 4 1,
    lexer_mode 53 4 1, lexer_mode 53 4 1, lexer_mode 53 4 1, lexer_mode 53 4 1, lexer_mode 53 4 1,
    lexer_mode 53 4 1, lexer_mode 53 4 1, lexer_mode 53 4 1, lexer_mode 53 4 1, lexer_mode 53 4 1,
    lexer_mode 53 4 1, lexer_mode 53 4 1, lexer_mode 53 4 3, lexer_mode 53 4 1, lexer_mode 53 4 1,
    lexer_mode 53 4 1, lexer_mode 53 4 1, lexer_mode 53 4 1, lexer_mode 53 4 1, lexer_mode 53 4 1,
    lexer_mode 53 4 1, lexer_mode 53 4 1, lexer_mode 53 4 1, lexer_mode 53 4 1, lexer_mode 53 4 1,
    lexer_mode 53 4 1, lexer_mode 53 4 1, lexer_mode 53 4 1, lexer_mode 53 4 1, lexer_mode 53 4 1]"

definition ts_lex_modes_12 :: "TSLexerMode list" where "ts_lex_modes_12 = [
    lexer_mode 53 4 1, lexer_mode 53 4 1, lexer_mode 53 4 1, lexer_mode 53 4 1, lexer_mode 53 4 1,
    lexer_mode 53 4 1, lexer_mode 53 4 1, lexer_mode 53 4 1, lexer_mode 53 4 1, lexer_mode 53 4 1,
    lexer_mode 53 4 1, lexer_mode 53 4 1, lexer_mode 53 4 1, lexer_mode 53 4 1, lexer_mode 53 4 1,
    lexer_mode 53 4 1, lexer_mode 53 4 1, lexer_mode 53 4 1, lexer_mode 53 4 1, lexer_mode 53 4 1,
    lexer_mode 53 4 1, lexer_mode 53 4 1, lexer_mode 53 4 1, lexer_mode 53 4 1, lexer_mode 53 4 1,
    lexer_mode 53 4 1, lexer_mode 53 4 1, lexer_mode 53 4 1, lexer_mode 53 4 1, lexer_mode 53 4 1,
    lexer_mode 53 4 1, lexer_mode 53 4 1, lexer_mode 53 4 1, lexer_mode 53 4 1, lexer_mode 53 4 1,
    lexer_mode 53 4 1, lexer_mode 53 4 1, lexer_mode 53 4 1, lexer_mode 53 4 1, lexer_mode 53 4 1,
    lexer_mode 53 4 1, lexer_mode 53 4 1, lexer_mode 53 4 1, lexer_mode 53 4 1, lexer_mode 53 4 1,
    lexer_mode 5 5 1, lexer_mode 5 5 1, lexer_mode 53 5 1, lexer_mode 53 5 3, lexer_mode 53 5 1,
    lexer_mode 53 5 1, lexer_mode 53 5 3, lexer_mode 53 5 3, lexer_mode 53 5 1, lexer_mode 53 5 1,
    lexer_mode 53 5 1, lexer_mode 53 5 3, lexer_mode 53 5 1, lexer_mode 53 5 1, lexer_mode 53 2 1,
    lexer_mode 5 5 1, lexer_mode 5 5 1, lexer_mode 5 5 4, lexer_mode 13 5 4, lexer_mode 4 5 5,
    lexer_mode 12 6 6, lexer_mode 12 6 6, lexer_mode 4 7 7, lexer_mode 4 6 7, lexer_mode 4 6 8,
    lexer_mode 12 2 6, lexer_mode 12 5 9, lexer_mode 12 7 9, lexer_mode 4 2 10, lexer_mode 12 2 6,
    lexer_mode 4 5 11, lexer_mode 4 7 11, lexer_mode 4 6 6, lexer_mode 12 5 9, lexer_mode 12 7 9,
    lexer_mode 4 2 8, lexer_mode 4 6 6, lexer_mode 4 2 6, lexer_mode 4 5 9, lexer_mode 4 5 9,
    lexer_mode 4 7 9, lexer_mode 4 7 9, lexer_mode 4 2 6, lexer_mode 4 6 1, lexer_mode 4 7 12,
    lexer_mode 4 7 12, lexer_mode 4 7 12, lexer_mode 4 7 12, lexer_mode 4 7 12, lexer_mode 4 7 12,
    lexer_mode 4 7 12, lexer_mode 4 7 12, lexer_mode 4 7 12, lexer_mode 4 7 12, lexer_mode 4 7 12,
    lexer_mode 4 7 12, lexer_mode 4 7 12, lexer_mode 4 7 12, lexer_mode 4 7 12, lexer_mode 4 7 12,
    lexer_mode 12 5 13, lexer_mode 4 7 12, lexer_mode 4 7 12, lexer_mode 4 7 12, lexer_mode 4 7 12,
    lexer_mode 4 7 12, lexer_mode 4 7 12, lexer_mode 4 7 12, lexer_mode 4 7 12, lexer_mode 4 7 12,
    lexer_mode 4 7 12, lexer_mode 4 7 12, lexer_mode 4 7 12, lexer_mode 4 7 1, lexer_mode 4 7 1,
    lexer_mode 4 7 1, lexer_mode 4 7 1, lexer_mode 4 7 1, lexer_mode 4 7 1, lexer_mode 4 7 1,
    lexer_mode 4 7 1, lexer_mode 4 7 1, lexer_mode 4 7 1, lexer_mode 4 7 12, lexer_mode 4 7 12,
    lexer_mode 4 7 12, lexer_mode 4 7 12, lexer_mode 4 7 12, lexer_mode 4 7 12, lexer_mode 4 7 12,
    lexer_mode 4 7 12, lexer_mode 4 7 12, lexer_mode 4 7 12, lexer_mode 4 7 12, lexer_mode 4 7 12,
    lexer_mode 4 7 12, lexer_mode 4 7 12, lexer_mode 4 7 12, lexer_mode 4 7 12, lexer_mode 4 7 12,
    lexer_mode 4 7 12, lexer_mode 4 7 12, lexer_mode 4 7 12, lexer_mode 4 7 12, lexer_mode 4 7 12]"

definition ts_lex_modes_13 :: "TSLexerMode list" where "ts_lex_modes_13 = [
    lexer_mode 4 7 12, lexer_mode 4 7 12, lexer_mode 4 7 12, lexer_mode 4 7 12, lexer_mode 4 7 12,
    lexer_mode 4 7 12, lexer_mode 4 7 12, lexer_mode 4 7 12, lexer_mode 4 7 12, lexer_mode 4 7 12,
    lexer_mode 4 7 12, lexer_mode 4 7 12, lexer_mode 4 7 12, lexer_mode 4 7 12, lexer_mode 4 7 12,
    lexer_mode 4 7 12, lexer_mode 4 7 12, lexer_mode 4 7 12, lexer_mode 4 7 12, lexer_mode 4 7 12,
    lexer_mode 4 7 12, lexer_mode 4 7 12, lexer_mode 4 7 12, lexer_mode 4 7 12, lexer_mode 4 7 12,
    lexer_mode 4 7 12, lexer_mode 4 7 12, lexer_mode 4 7 12, lexer_mode 4 7 12, lexer_mode 4 7 12,
    lexer_mode 4 7 12, lexer_mode 4 7 12, lexer_mode 4 7 12, lexer_mode 4 7 12, lexer_mode 4 7 12,
    lexer_mode 4 7 12, lexer_mode 4 7 12, lexer_mode 4 7 12, lexer_mode 4 7 12, lexer_mode 4 7 12,
    lexer_mode 4 2 1, lexer_mode 4 2 1, lexer_mode 4 5 13, lexer_mode 12 6 1, lexer_mode 12 6 14,
    lexer_mode 4 5 11, lexer_mode 4 5 13, lexer_mode 4 6 1, lexer_mode 12 8 1, lexer_mode 12 6 15,
    lexer_mode 4 6 14, lexer_mode 12 8 4, lexer_mode 4 8 16, lexer_mode 12 7 15, lexer_mode 4 6 14,
    lexer_mode 12 2 17, lexer_mode 12 8 1, lexer_mode 12 6 16, lexer_mode 4 7 15,
    lexer_mode 4 2 17, lexer_mode 12 7 1, lexer_mode 12 7 14, lexer_mode 12 8 16,
    lexer_mode 12 7 15, lexer_mode 4 6 15, lexer_mode 4 7 15, lexer_mode 4 8 4, lexer_mode 4 8 4,
    lexer_mode 12 8 16, lexer_mode 4 2 17, lexer_mode 4 6 15, lexer_mode 12 6 1, lexer_mode 4 6 18,
    lexer_mode 4 6 18, lexer_mode 4 6 18, lexer_mode 4 6 18, lexer_mode 4 6 18, lexer_mode 4 6 18,
    lexer_mode 4 6 18, lexer_mode 4 6 18, lexer_mode 12 8 1, lexer_mode 4 6 18, lexer_mode 4 6 18,
    lexer_mode 4 6 18, lexer_mode 4 6 18, lexer_mode 4 6 18, lexer_mode 4 6 18, lexer_mode 4 6 18,
    lexer_mode 4 6 18, lexer_mode 4 6 18, lexer_mode 4 6 18, lexer_mode 4 6 18, lexer_mode 4 6 18,
    lexer_mode 12 6 1, lexer_mode 4 8 16, lexer_mode 4 6 18, lexer_mode 4 6 18, lexer_mode 4 6 18,
    lexer_mode 4 6 18, lexer_mode 4 6 18, lexer_mode 13 5 19, lexer_mode 12 7 16,
    lexer_mode 4 6 18, lexer_mode 4 6 18, lexer_mode 4 6 18, lexer_mode 4 6 18, lexer_mode 4 6 18,
    lexer_mode 4 6 18, lexer_mode 4 6 18, lexer_mode 4 6 18, lexer_mode 4 6 18, lexer_mode 4 6 18,
    lexer_mode 4 6 18, lexer_mode 12 7 1, lexer_mode 4 6 18, lexer_mode 4 6 18, lexer_mode 4 6 18,
    lexer_mode 4 6 18, lexer_mode 4 6 18, lexer_mode 4 6 18, lexer_mode 4 6 18, lexer_mode 4 6 18,
    lexer_mode 4 6 18, lexer_mode 4 6 18, lexer_mode 4 6 18, lexer_mode 4 6 18, lexer_mode 4 6 18,
    lexer_mode 4 6 18, lexer_mode 4 6 18, lexer_mode 4 6 18, lexer_mode 4 6 18, lexer_mode 4 6 18,
    lexer_mode 4 6 18, lexer_mode 4 6 18, lexer_mode 12 6 1, lexer_mode 4 6 18, lexer_mode 4 6 18,
    lexer_mode 4 6 18, lexer_mode 4 6 18, lexer_mode 4 6 18, lexer_mode 4 6 18, lexer_mode 4 6 18,
    lexer_mode 4 6 18, lexer_mode 4 6 18, lexer_mode 4 6 18, lexer_mode 4 6 18, lexer_mode 4 6 18,
    lexer_mode 4 6 18, lexer_mode 4 6 18, lexer_mode 4 8 16]"

definition ts_lex_modes_14 :: "TSLexerMode list" where "ts_lex_modes_14 = [
    lexer_mode 4 6 18, lexer_mode 4 6 18, lexer_mode 4 2 1, lexer_mode 4 7 16, lexer_mode 4 7 16,
    lexer_mode 13 2 1, lexer_mode 13 2 1, lexer_mode 4 2 1, lexer_mode 4 2 1, lexer_mode 4 2 1,
    lexer_mode 4 2 20, lexer_mode 4 2 1, lexer_mode 4 2 20, lexer_mode 4 2 20, lexer_mode 4 2 1,
    lexer_mode 4 2 1, lexer_mode 4 2 20, lexer_mode 4 2 20, lexer_mode 4 2 20, lexer_mode 4 2 1,
    lexer_mode 4 2 20, lexer_mode 4 2 1, lexer_mode 4 2 20, lexer_mode 4 2 1, lexer_mode 4 2 1,
    lexer_mode 4 2 20, lexer_mode 4 2 1, lexer_mode 4 2 20, lexer_mode 4 2 1, lexer_mode 4 2 1,
    lexer_mode 4 2 20, lexer_mode 4 2 20, lexer_mode 4 2 20, lexer_mode 4 2 1, lexer_mode 4 2 20,
    lexer_mode 4 2 20, lexer_mode 4 2 20, lexer_mode 4 2 20, lexer_mode 4 2 1, lexer_mode 4 2 1,
    lexer_mode 4 2 20, lexer_mode 4 2 20, lexer_mode 53 2 21, lexer_mode 4 2 20, lexer_mode 4 2 20,
    lexer_mode 4 2 20, lexer_mode 4 2 20, lexer_mode 4 2 20, lexer_mode 4 2 20, lexer_mode 4 2 20,
    lexer_mode 4 2 20, lexer_mode 4 2 20, lexer_mode 4 2 1, lexer_mode 4 2 20, lexer_mode 4 2 20,
    lexer_mode 4 2 20, lexer_mode 4 2 20, lexer_mode 4 2 20, lexer_mode 4 2 20, lexer_mode 4 2 20,
    lexer_mode 4 2 1, lexer_mode 4 2 20, lexer_mode 4 2 1, lexer_mode 4 2 20, lexer_mode 4 2 20,
    lexer_mode 4 2 20, lexer_mode 4 2 20, lexer_mode 4 2 20, lexer_mode 4 2 20, lexer_mode 4 2 1,
    lexer_mode 53 2 21, lexer_mode 4 2 20, lexer_mode 4 2 20, lexer_mode 4 2 20, lexer_mode 4 2 20,
    lexer_mode 4 2 20, lexer_mode 4 2 1, lexer_mode 4 2 1, lexer_mode 4 2 20, lexer_mode 4 2 20,
    lexer_mode 4 2 20, lexer_mode 4 2 20, lexer_mode 4 2 20, lexer_mode 4 2 20, lexer_mode 4 2 1,
    lexer_mode 4 2 20, lexer_mode 4 2 20, lexer_mode 4 2 20, lexer_mode 4 2 1, lexer_mode 4 2 20,
    lexer_mode 4 2 20, lexer_mode 4 2 20, lexer_mode 4 2 1, lexer_mode 4 2 20, lexer_mode 4 2 20,
    lexer_mode 4 2 20, lexer_mode 4 2 20, lexer_mode 4 2 1, lexer_mode 4 2 20, lexer_mode 4 2 20,
    lexer_mode 4 2 20, lexer_mode 4 2 1, lexer_mode 4 2 20, lexer_mode 4 2 20, lexer_mode 4 2 20,
    lexer_mode 4 2 20, lexer_mode 4 2 20, lexer_mode 4 2 20, lexer_mode 4 2 1, lexer_mode 4 2 20,
    lexer_mode 4 2 20, lexer_mode 4 2 1, lexer_mode 4 2 20, lexer_mode 4 2 20, lexer_mode 4 2 20,
    lexer_mode 4 2 1, lexer_mode 4 2 20, lexer_mode 4 2 20, lexer_mode 4 2 1, lexer_mode 4 2 20,
    lexer_mode 4 2 20, lexer_mode 4 2 1, lexer_mode 4 2 20, lexer_mode 4 2 20, lexer_mode 4 2 20,
    lexer_mode 4 2 20, lexer_mode 4 2 20, lexer_mode 4 2 20, lexer_mode 4 2 20, lexer_mode 4 2 20,
    lexer_mode 4 2 20, lexer_mode 4 2 20, lexer_mode 4 2 20, lexer_mode 4 2 20, lexer_mode 4 2 20,
    lexer_mode 4 2 20, lexer_mode 4 2 20, lexer_mode 4 2 20, lexer_mode 4 2 20, lexer_mode 4 2 20,
    lexer_mode 4 2 20, lexer_mode 4 2 20, lexer_mode 4 2 20, lexer_mode 4 2 20, lexer_mode 4 2 20,
    lexer_mode 4 2 20, lexer_mode 4 2 20, lexer_mode 4 2 20, lexer_mode 4 2 20, lexer_mode 4 2 20]"

definition ts_lex_modes_15 :: "TSLexerMode list" where "ts_lex_modes_15 = [
    lexer_mode 4 2 20, lexer_mode 4 2 20, lexer_mode 4 2 20, lexer_mode 4 2 20, lexer_mode 4 2 20,
    lexer_mode 4 2 20, lexer_mode 4 2 20, lexer_mode 4 2 20, lexer_mode 4 2 20, lexer_mode 4 2 20,
    lexer_mode 4 2 20, lexer_mode 4 2 20, lexer_mode 4 2 20, lexer_mode 4 2 20, lexer_mode 4 2 20,
    lexer_mode 4 2 20, lexer_mode 4 2 20, lexer_mode 4 2 20, lexer_mode 4 2 20, lexer_mode 4 2 20,
    lexer_mode 4 2 20, lexer_mode 4 2 20, lexer_mode 4 2 20, lexer_mode 4 2 20, lexer_mode 4 2 20,
    lexer_mode 4 2 20, lexer_mode 4 2 20, lexer_mode 4 2 20, lexer_mode 4 2 20, lexer_mode 4 2 20,
    lexer_mode 4 2 20, lexer_mode 4 2 20, lexer_mode 4 2 20, lexer_mode 4 2 20, lexer_mode 4 2 20,
    lexer_mode 4 2 20, lexer_mode 4 2 20, lexer_mode 4 2 20, lexer_mode 4 2 20, lexer_mode 4 2 20,
    lexer_mode 4 2 20, lexer_mode 4 2 20, lexer_mode 4 2 20, lexer_mode 4 2 20, lexer_mode 4 6 1,
    lexer_mode 4 2 20, lexer_mode 4 2 20, lexer_mode 4 2 20, lexer_mode 4 2 20, lexer_mode 4 2 20,
    lexer_mode 4 2 20, lexer_mode 4 2 20, lexer_mode 4 2 20, lexer_mode 4 2 20, lexer_mode 4 2 20,
    lexer_mode 4 2 20, lexer_mode 4 2 20, lexer_mode 4 2 20, lexer_mode 4 2 20, lexer_mode 4 2 20,
    lexer_mode 4 2 1, lexer_mode 4 2 20, lexer_mode 4 2 20, lexer_mode 4 2 20, lexer_mode 53 2 21,
    lexer_mode 4 2 20, lexer_mode 4 2 20, lexer_mode 4 2 20, lexer_mode 4 2 20, lexer_mode 4 2 20,
    lexer_mode 4 2 20, lexer_mode 4 2 20, lexer_mode 4 2 20, lexer_mode 4 2 20, lexer_mode 4 2 20,
    lexer_mode 4 2 20, lexer_mode 4 2 20, lexer_mode 4 2 20, lexer_mode 4 2 20, lexer_mode 4 2 1,
    lexer_mode 4 2 20, lexer_mode 4 2 20, lexer_mode 4 2 20, lexer_mode 4 2 1, lexer_mode 4 2 20,
    lexer_mode 4 2 20, lexer_mode 4 2 20, lexer_mode 4 2 1, lexer_mode 4 2 20, lexer_mode 4 2 1,
    lexer_mode 4 2 1, lexer_mode 4 2 20, lexer_mode 4 2 1, lexer_mode 4 2 1, lexer_mode 4 2 20,
    lexer_mode 4 2 20, lexer_mode 4 2 1, lexer_mode 4 2 1, lexer_mode 4 2 20, lexer_mode 4 2 20,
    lexer_mode 4 2 1, lexer_mode 4 2 20, lexer_mode 4 2 20, lexer_mode 4 2 20, lexer_mode 4 2 1,
    lexer_mode 4 2 1, lexer_mode 4 2 20, lexer_mode 4 2 20, lexer_mode 53 2 21, lexer_mode 4 2 1,
    lexer_mode 4 2 1, lexer_mode 4 2 20, lexer_mode 4 2 20, lexer_mode 4 2 1, lexer_mode 4 2 20,
    lexer_mode 4 2 1, lexer_mode 4 2 20, lexer_mode 4 2 1, lexer_mode 4 2 20, lexer_mode 4 2 1,
    lexer_mode 4 2 20, lexer_mode 4 2 20, lexer_mode 4 2 20, lexer_mode 4 2 1, lexer_mode 53 2 21,
    lexer_mode 53 2 21, lexer_mode 4 2 1, lexer_mode 4 2 20, lexer_mode 4 2 20, lexer_mode 4 2 20,
    lexer_mode 4 2 20, lexer_mode 4 2 1, lexer_mode 4 2 20, lexer_mode 4 2 20, lexer_mode 4 2 1,
    lexer_mode 4 2 20, lexer_mode 4 2 1, lexer_mode 4 2 20, lexer_mode 4 2 20, lexer_mode 4 2 20,
    lexer_mode 4 2 20, lexer_mode 4 2 20, lexer_mode 4 2 20, lexer_mode 4 2 20, lexer_mode 4 2 20,
    lexer_mode 4 2 1, lexer_mode 4 2 20, lexer_mode 4 2 1, lexer_mode 4 2 20, lexer_mode 4 2 20]"

definition ts_lex_modes_16 :: "TSLexerMode list" where "ts_lex_modes_16 = [
    lexer_mode 4 2 1, lexer_mode 4 2 1, lexer_mode 4 2 20, lexer_mode 4 2 1, lexer_mode 4 2 20,
    lexer_mode 4 2 20, lexer_mode 4 2 1, lexer_mode 4 2 20, lexer_mode 4 2 1, lexer_mode 4 2 20,
    lexer_mode 4 2 20, lexer_mode 4 2 20, lexer_mode 4 2 1, lexer_mode 4 2 20, lexer_mode 4 2 20,
    lexer_mode 4 2 20, lexer_mode 4 2 20, lexer_mode 4 2 20, lexer_mode 4 2 20, lexer_mode 4 2 1,
    lexer_mode 4 6 1, lexer_mode 4 2 1, lexer_mode 4 2 1, lexer_mode 4 2 20, lexer_mode 4 2 20,
    lexer_mode 4 2 20, lexer_mode 4 2 20, lexer_mode 4 2 20, lexer_mode 4 2 20, lexer_mode 4 2 20,
    lexer_mode 4 2 20, lexer_mode 4 2 20, lexer_mode 4 2 20, lexer_mode 4 2 20, lexer_mode 4 2 20,
    lexer_mode 4 2 20, lexer_mode 4 2 20, lexer_mode 4 2 20, lexer_mode 4 2 20, lexer_mode 4 2 20,
    lexer_mode 4 2 20, lexer_mode 4 2 20, lexer_mode 4 2 20, lexer_mode 4 2 20, lexer_mode 4 2 20,
    lexer_mode 4 2 20, lexer_mode 4 2 20, lexer_mode 4 2 20, lexer_mode 4 2 20, lexer_mode 4 2 20,
    lexer_mode 4 2 20, lexer_mode 4 2 20, lexer_mode 4 2 20, lexer_mode 4 2 20, lexer_mode 4 2 20,
    lexer_mode 4 2 20, lexer_mode 4 2 20, lexer_mode 4 2 20, lexer_mode 4 2 20, lexer_mode 4 2 20,
    lexer_mode 4 2 20, lexer_mode 4 2 20, lexer_mode 4 2 20, lexer_mode 4 2 20, lexer_mode 4 2 20,
    lexer_mode 4 2 20, lexer_mode 4 2 20, lexer_mode 4 2 20, lexer_mode 4 2 20, lexer_mode 4 2 20,
    lexer_mode 4 2 20, lexer_mode 4 2 20, lexer_mode 4 2 20, lexer_mode 4 2 20, lexer_mode 4 2 20,
    lexer_mode 4 2 20, lexer_mode 4 2 20, lexer_mode 4 2 20, lexer_mode 4 2 20, lexer_mode 4 2 20,
    lexer_mode 4 2 20, lexer_mode 4 2 20, lexer_mode 4 2 20, lexer_mode 4 2 20, lexer_mode 4 2 20,
    lexer_mode 4 2 20, lexer_mode 4 2 20, lexer_mode 4 2 20, lexer_mode 4 2 20, lexer_mode 4 2 20,
    lexer_mode 4 2 20, lexer_mode 4 2 20, lexer_mode 4 2 20, lexer_mode 4 2 20, lexer_mode 4 2 20,
    lexer_mode 4 2 20, lexer_mode 4 2 20, lexer_mode 4 2 20, lexer_mode 4 2 20, lexer_mode 4 2 20,
    lexer_mode 4 2 20, lexer_mode 4 2 20, lexer_mode 4 2 20, lexer_mode 4 2 20, lexer_mode 4 2 20,
    lexer_mode 4 2 20, lexer_mode 4 2 20, lexer_mode 4 2 20, lexer_mode 4 2 20, lexer_mode 4 2 20,
    lexer_mode 4 2 20, lexer_mode 4 2 20, lexer_mode 4 2 20, lexer_mode 4 2 20, lexer_mode 4 2 20,
    lexer_mode 4 2 20, lexer_mode 4 2 20, lexer_mode 4 2 20, lexer_mode 4 2 20, lexer_mode 4 2 20,
    lexer_mode 4 2 20, lexer_mode 4 2 20, lexer_mode 4 2 20, lexer_mode 4 2 20, lexer_mode 4 2 20,
    lexer_mode 4 2 20, lexer_mode 4 2 20, lexer_mode 4 2 20, lexer_mode 4 2 20, lexer_mode 4 2 20,
    lexer_mode 4 2 20, lexer_mode 4 2 20, lexer_mode 4 2 20, lexer_mode 4 2 20, lexer_mode 4 2 20,
    lexer_mode 4 2 20, lexer_mode 4 2 20, lexer_mode 4 2 20, lexer_mode 4 2 20, lexer_mode 4 2 20,
    lexer_mode 4 2 20, lexer_mode 4 2 20, lexer_mode 4 2 20, lexer_mode 4 2 20, lexer_mode 4 2 20,
    lexer_mode 4 2 20, lexer_mode 4 2 20, lexer_mode 4 2 20, lexer_mode 4 2 20, lexer_mode 4 2 20]"

definition ts_lex_modes_17 :: "TSLexerMode list" where "ts_lex_modes_17 = [
    lexer_mode 4 2 20, lexer_mode 4 2 20, lexer_mode 4 2 20, lexer_mode 4 2 20, lexer_mode 4 2 20,
    lexer_mode 4 2 20, lexer_mode 4 2 20, lexer_mode 4 2 20, lexer_mode 4 2 20, lexer_mode 4 2 20,
    lexer_mode 4 2 20, lexer_mode 4 2 20, lexer_mode 4 2 20, lexer_mode 4 2 20, lexer_mode 4 2 20,
    lexer_mode 4 2 20, lexer_mode 4 2 20, lexer_mode 4 2 20, lexer_mode 4 2 20, lexer_mode 4 2 20,
    lexer_mode 4 2 20, lexer_mode 4 2 20, lexer_mode 4 2 20, lexer_mode 4 2 20, lexer_mode 4 2 20,
    lexer_mode 4 2 20, lexer_mode 4 2 20, lexer_mode 4 2 20, lexer_mode 4 2 20, lexer_mode 4 2 20,
    lexer_mode 4 2 20, lexer_mode 4 2 20, lexer_mode 4 2 20, lexer_mode 4 2 20, lexer_mode 4 2 20,
    lexer_mode 4 2 20, lexer_mode 4 2 20, lexer_mode 4 2 20, lexer_mode 4 2 20, lexer_mode 4 2 20,
    lexer_mode 4 2 20, lexer_mode 4 2 20, lexer_mode 4 2 20, lexer_mode 4 2 20, lexer_mode 4 2 20,
    lexer_mode 4 2 20, lexer_mode 4 2 20, lexer_mode 4 2 20, lexer_mode 4 2 20, lexer_mode 4 2 20,
    lexer_mode 4 2 20, lexer_mode 4 2 20, lexer_mode 4 2 20, lexer_mode 4 2 20, lexer_mode 4 2 20,
    lexer_mode 4 2 20, lexer_mode 4 2 20, lexer_mode 4 2 20, lexer_mode 4 2 20, lexer_mode 4 2 20,
    lexer_mode 4 2 20, lexer_mode 4 2 20, lexer_mode 4 2 20, lexer_mode 4 2 20, lexer_mode 4 2 20,
    lexer_mode 4 2 20, lexer_mode 4 2 20, lexer_mode 4 2 20, lexer_mode 4 2 20, lexer_mode 4 2 20,
    lexer_mode 4 2 20, lexer_mode 4 2 20, lexer_mode 4 2 20, lexer_mode 4 2 20, lexer_mode 4 2 20,
    lexer_mode 4 2 20, lexer_mode 4 2 20, lexer_mode 4 2 20, lexer_mode 4 2 20, lexer_mode 4 2 20,
    lexer_mode 4 2 20, lexer_mode 4 2 20, lexer_mode 4 2 20, lexer_mode 4 2 20, lexer_mode 4 2 20,
    lexer_mode 4 2 20, lexer_mode 4 2 20, lexer_mode 4 2 20, lexer_mode 4 2 20, lexer_mode 4 2 20,
    lexer_mode 4 2 20, lexer_mode 4 2 20, lexer_mode 4 2 20, lexer_mode 4 2 20, lexer_mode 4 2 20,
    lexer_mode 4 2 20, lexer_mode 4 2 20, lexer_mode 4 2 20, lexer_mode 4 2 20, lexer_mode 4 2 20,
    lexer_mode 4 2 20, lexer_mode 4 2 20, lexer_mode 4 2 20, lexer_mode 4 2 20, lexer_mode 4 2 20,
    lexer_mode 4 2 20, lexer_mode 4 2 20, lexer_mode 4 2 20, lexer_mode 4 2 20, lexer_mode 4 2 20,
    lexer_mode 4 2 20, lexer_mode 4 2 20, lexer_mode 4 2 20, lexer_mode 4 2 20, lexer_mode 4 2 20,
    lexer_mode 4 2 20, lexer_mode 4 2 20, lexer_mode 4 2 20, lexer_mode 4 2 20, lexer_mode 4 2 20,
    lexer_mode 4 2 20, lexer_mode 4 2 20, lexer_mode 4 2 20, lexer_mode 4 2 20, lexer_mode 4 2 20,
    lexer_mode 4 2 20, lexer_mode 4 2 20, lexer_mode 4 2 20, lexer_mode 4 2 20, lexer_mode 4 2 20,
    lexer_mode 4 2 20, lexer_mode 4 2 20, lexer_mode 4 2 20, lexer_mode 4 2 20, lexer_mode 4 2 20,
    lexer_mode 4 2 20, lexer_mode 4 2 20, lexer_mode 4 2 20, lexer_mode 4 2 20, lexer_mode 4 2 20,
    lexer_mode 4 2 20, lexer_mode 4 2 20, lexer_mode 4 2 20, lexer_mode 4 2 20, lexer_mode 4 2 20,
    lexer_mode 4 2 20, lexer_mode 4 2 20, lexer_mode 4 2 20, lexer_mode 4 2 20, lexer_mode 4 2 20]"

definition ts_lex_modes_18 :: "TSLexerMode list" where "ts_lex_modes_18 = [
    lexer_mode 4 2 20, lexer_mode 4 2 1, lexer_mode 4 2 20, lexer_mode 4 2 20, lexer_mode 4 2 20,
    lexer_mode 4 2 1, lexer_mode 4 2 20, lexer_mode 4 2 20, lexer_mode 4 2 20, lexer_mode 4 2 1,
    lexer_mode 4 2 1, lexer_mode 4 2 20, lexer_mode 4 2 1, lexer_mode 4 2 20, lexer_mode 4 2 1,
    lexer_mode 4 2 1, lexer_mode 4 2 1, lexer_mode 4 2 1, lexer_mode 4 2 1, lexer_mode 4 2 1,
    lexer_mode 4 2 1, lexer_mode 4 2 1, lexer_mode 4 2 1, lexer_mode 4 2 1, lexer_mode 4 2 1,
    lexer_mode 4 2 1, lexer_mode 4 2 1, lexer_mode 4 2 1, lexer_mode 4 2 1, lexer_mode 4 2 1,
    lexer_mode 4 2 1, lexer_mode 4 2 1, lexer_mode 4 2 1, lexer_mode 4 2 1, lexer_mode 4 2 1,
    lexer_mode 4 2 1, lexer_mode 4 2 1, lexer_mode 4 2 1, lexer_mode 4 2 1, lexer_mode 4 2 1,
    lexer_mode 4 2 1, lexer_mode 4 2 1, lexer_mode 4 2 1, lexer_mode 4 2 1, lexer_mode 4 2 1,
    lexer_mode 4 2 1, lexer_mode 4 2 1, lexer_mode 4 2 1, lexer_mode 4 2 1, lexer_mode 4 2 1,
    lexer_mode 4 2 1, lexer_mode 4 2 1, lexer_mode 4 2 1, lexer_mode 4 2 1, lexer_mode 4 2 1,
    lexer_mode 4 2 1, lexer_mode 4 2 1, lexer_mode 4 2 1, lexer_mode 4 2 1, lexer_mode 4 2 1,
    lexer_mode 4 2 1, lexer_mode 4 2 1, lexer_mode 4 2 1, lexer_mode 4 2 1, lexer_mode 4 2 1,
    lexer_mode 4 2 1, lexer_mode 4 2 1, lexer_mode 4 2 1, lexer_mode 4 2 1, lexer_mode 4 2 1,
    lexer_mode 4 2 1, lexer_mode 4 2 1, lexer_mode 4 2 1, lexer_mode 4 2 1, lexer_mode 4 2 1,
    lexer_mode 4 2 1, lexer_mode 4 2 1, lexer_mode 4 2 1, lexer_mode 4 2 1, lexer_mode 4 2 1,
    lexer_mode 4 2 1, lexer_mode 4 2 1, lexer_mode 4 2 1, lexer_mode 4 2 1, lexer_mode 4 2 1,
    lexer_mode 4 2 1, lexer_mode 4 2 1, lexer_mode 4 2 1, lexer_mode 4 2 1, lexer_mode 4 2 1,
    lexer_mode 4 2 1, lexer_mode 4 2 1, lexer_mode 4 2 1, lexer_mode 4 2 1, lexer_mode 4 2 1,
    lexer_mode 4 2 1, lexer_mode 4 2 1, lexer_mode 4 2 1, lexer_mode 4 2 20, lexer_mode 4 2 1,
    lexer_mode 4 2 20, lexer_mode 4 2 20, lexer_mode 4 2 1, lexer_mode 4 2 20, lexer_mode 4 2 20,
    lexer_mode 4 2 20, lexer_mode 4 2 1, lexer_mode 4 2 20, lexer_mode 4 2 20, lexer_mode 4 2 1,
    lexer_mode 4 2 20, lexer_mode 4 2 20, lexer_mode 4 2 1, lexer_mode 4 2 1, lexer_mode 4 2 1,
    lexer_mode 4 2 20, lexer_mode 4 2 20, lexer_mode 53 2 21, lexer_mode 4 2 1, lexer_mode 4 2 1,
    lexer_mode 4 2 20, lexer_mode 4 2 20, lexer_mode 4 2 1, lexer_mode 4 2 1, lexer_mode 4 2 20,
    lexer_mode 4 2 20, lexer_mode 4 2 1, lexer_mode 4 2 20, lexer_mode 4 6 18, lexer_mode 4 6 18,
    lexer_mode 4 6 18, lexer_mode 4 6 1, lexer_mode 4 6 18, lexer_mode 4 6 18, lexer_mode 4 6 18,
    lexer_mode 4 6 18, lexer_mode 4 6 18, lexer_mode 4 6 18, lexer_mode 4 2 1, lexer_mode 4 2 18,
    lexer_mode 4 2 18, lexer_mode 4 2 18, lexer_mode 4 2 1, lexer_mode 4 2 1, lexer_mode 4 2 1,
    lexer_mode 4 2 1, lexer_mode 4 2 1, lexer_mode 4 2 1, lexer_mode 4 2 18, lexer_mode 4 2 18]"

definition ts_lex_modes_19 :: "TSLexerMode list" where "ts_lex_modes_19 = [
    lexer_mode 4 2 18, lexer_mode 4 2 18, lexer_mode 4 2 18, lexer_mode 4 2 1, lexer_mode 4 2 18,
    lexer_mode 4 2 18, lexer_mode 4 2 18, lexer_mode 4 2 18, lexer_mode 4 2 18, lexer_mode 4 2 18,
    lexer_mode 4 2 18, lexer_mode 4 2 18, lexer_mode 4 2 18, lexer_mode 4 2 18, lexer_mode 4 2 18,
    lexer_mode 4 2 18, lexer_mode 4 2 18, lexer_mode 4 2 18, lexer_mode 4 2 18, lexer_mode 4 2 18,
    lexer_mode 4 2 18, lexer_mode 4 2 18, lexer_mode 4 2 18, lexer_mode 4 2 18, lexer_mode 4 2 18,
    lexer_mode 4 2 18, lexer_mode 4 2 18, lexer_mode 4 2 18, lexer_mode 4 2 18, lexer_mode 4 2 18,
    lexer_mode 4 2 18, lexer_mode 4 2 18, lexer_mode 4 2 18, lexer_mode 4 2 18, lexer_mode 4 2 18,
    lexer_mode 4 2 18, lexer_mode 4 2 18, lexer_mode 4 2 18, lexer_mode 4 2 18, lexer_mode 4 2 18,
    lexer_mode 4 2 18, lexer_mode 4 2 18, lexer_mode 4 2 18, lexer_mode 4 2 18, lexer_mode 4 2 18,
    lexer_mode 4 2 18, lexer_mode 4 2 18, lexer_mode 4 2 18, lexer_mode 4 2 18, lexer_mode 4 2 18,
    lexer_mode 4 2 18, lexer_mode 4 2 18, lexer_mode 4 2 18, lexer_mode 4 2 18, lexer_mode 4 2 18,
    lexer_mode 4 2 18, lexer_mode 4 2 18, lexer_mode 4 2 18, lexer_mode 4 2 18, lexer_mode 4 2 18,
    lexer_mode 4 2 18, lexer_mode 4 2 18, lexer_mode 4 2 18, lexer_mode 4 2 18, lexer_mode 4 2 18,
    lexer_mode 4 2 18, lexer_mode 4 2 18, lexer_mode 4 2 18, lexer_mode 4 2 18, lexer_mode 4 2 18,
    lexer_mode 4 2 18, lexer_mode 4 2 18, lexer_mode 4 2 18, lexer_mode 4 2 18, lexer_mode 4 2 1,
    lexer_mode 4 2 18, lexer_mode 4 2 18, lexer_mode 4 2 18, lexer_mode 4 2 18, lexer_mode 4 2 18,
    lexer_mode 4 2 18, lexer_mode 4 2 18, lexer_mode 4 2 18, lexer_mode 4 2 18, lexer_mode 4 2 18,
    lexer_mode 4 2 18, lexer_mode 4 2 18, lexer_mode 4 2 1, lexer_mode 4 2 18, lexer_mode 4 2 18,
    lexer_mode 4 2 1, lexer_mode 4 2 18, lexer_mode 4 2 18, lexer_mode 4 2 1, lexer_mode 4 2 18,
    lexer_mode 4 2 1, lexer_mode 4 2 18, lexer_mode 4 2 18, lexer_mode 4 2 18, lexer_mode 4 2 1,
    lexer_mode 4 2 18, lexer_mode 4 2 18, lexer_mode 4 2 1, lexer_mode 4 2 18, lexer_mode 4 2 18,
    lexer_mode 4 2 18, lexer_mode 4 2 18, lexer_mode 4 2 18, lexer_mode 4 2 18, lexer_mode 4 2 18,
    lexer_mode 4 2 18, lexer_mode 4 2 18, lexer_mode 4 2 18, lexer_mode 4 2 18, lexer_mode 4 2 18,
    lexer_mode 4 2 18, lexer_mode 4 2 18, lexer_mode 4 2 18, lexer_mode 4 2 18, lexer_mode 4 2 18,
    lexer_mode 4 2 18, lexer_mode 4 2 18, lexer_mode 4 2 18, lexer_mode 4 2 1, lexer_mode 4 2 18,
    lexer_mode 4 2 18, lexer_mode 4 2 18, lexer_mode 4 2 18, lexer_mode 4 2 18, lexer_mode 4 2 18,
    lexer_mode 4 2 18, lexer_mode 4 2 18, lexer_mode 4 2 18, lexer_mode 4 2 18, lexer_mode 4 2 18,
    lexer_mode 4 2 18, lexer_mode 4 2 18, lexer_mode 4 2 18, lexer_mode 4 2 18, lexer_mode 4 2 18,
    lexer_mode 4 2 18, lexer_mode 4 2 18, lexer_mode 4 2 18, lexer_mode 4 2 18, lexer_mode 4 2 18,
    lexer_mode 4 2 18, lexer_mode 4 2 18, lexer_mode 4 2 18, lexer_mode 4 2 18, lexer_mode 4 2 18]"

definition ts_lex_modes_20 :: "TSLexerMode list" where "ts_lex_modes_20 = [
    lexer_mode 4 2 18, lexer_mode 4 2 18, lexer_mode 4 2 18, lexer_mode 4 2 18, lexer_mode 4 2 18,
    lexer_mode 4 2 18, lexer_mode 4 2 18, lexer_mode 4 2 18, lexer_mode 4 2 18, lexer_mode 4 2 18,
    lexer_mode 4 2 18, lexer_mode 4 2 18, lexer_mode 4 2 18, lexer_mode 4 2 18, lexer_mode 4 2 18,
    lexer_mode 4 2 18, lexer_mode 4 2 18, lexer_mode 4 2 18, lexer_mode 4 2 18, lexer_mode 4 2 18,
    lexer_mode 4 2 18, lexer_mode 4 2 18, lexer_mode 4 2 18, lexer_mode 4 2 18, lexer_mode 4 2 18,
    lexer_mode 4 2 18, lexer_mode 4 2 18, lexer_mode 4 2 18, lexer_mode 4 2 18, lexer_mode 4 2 18,
    lexer_mode 4 2 1, lexer_mode 4 2 18, lexer_mode 4 2 18, lexer_mode 4 2 1, lexer_mode 4 2 18,
    lexer_mode 4 2 1, lexer_mode 4 2 18, lexer_mode 4 2 18, lexer_mode 4 2 18, lexer_mode 4 2 1,
    lexer_mode 4 2 18, lexer_mode 4 2 18, lexer_mode 4 2 18, lexer_mode 4 2 18, lexer_mode 4 2 18,
    lexer_mode 4 2 18, lexer_mode 4 2 18, lexer_mode 4 2 18, lexer_mode 4 2 1, lexer_mode 4 2 18,
    lexer_mode 4 2 18, lexer_mode 4 2 18, lexer_mode 4 2 1, lexer_mode 4 2 18, lexer_mode 4 2 18,
    lexer_mode 4 2 18, lexer_mode 4 2 18, lexer_mode 4 2 18, lexer_mode 4 2 18, lexer_mode 4 2 18,
    lexer_mode 4 2 18, lexer_mode 4 2 18, lexer_mode 4 2 18, lexer_mode 4 2 18, lexer_mode 4 2 18,
    lexer_mode 4 2 18, lexer_mode 4 2 1, lexer_mode 4 2 18, lexer_mode 4 2 18, lexer_mode 4 2 18,
    lexer_mode 4 2 18, lexer_mode 4 2 18, lexer_mode 4 2 18, lexer_mode 4 2 1, lexer_mode 4 2 18,
    lexer_mode 4 2 18, lexer_mode 4 2 18, lexer_mode 4 2 18, lexer_mode 4 2 18, lexer_mode 4 2 18,
    lexer_mode 4 2 18, lexer_mode 4 2 18, lexer_mode 4 2 18, lexer_mode 4 2 18, lexer_mode 4 2 18,
    lexer_mode 4 2 1, lexer_mode 4 2 18, lexer_mode 4 2 18, lexer_mode 4 2 18, lexer_mode 4 2 18,
    lexer_mode 4 2 18, lexer_mode 4 2 18, lexer_mode 4 2 18, lexer_mode 4 2 18, lexer_mode 4 2 18,
    lexer_mode 4 2 18, lexer_mode 4 2 18, lexer_mode 4 2 1, lexer_mode 4 2 1, lexer_mode 4 2 18,
    lexer_mode 4 2 18, lexer_mode 4 2 1, lexer_mode 4 6 18, lexer_mode 4 2 18, lexer_mode 4 2 18,
    lexer_mode 4 2 18, lexer_mode 4 2 18, lexer_mode 4 2 18, lexer_mode 4 2 18, lexer_mode 4 2 18,
    lexer_mode 4 2 18, lexer_mode 4 2 18, lexer_mode 4 2 18, lexer_mode 4 2 18, lexer_mode 4 2 18,
    lexer_mode 4 2 18, lexer_mode 4 2 18, lexer_mode 4 2 18, lexer_mode 4 2 1, lexer_mode 4 2 18,
    lexer_mode 4 2 1, lexer_mode 4 2 1, lexer_mode 4 2 1, lexer_mode 4 2 1, lexer_mode 4 2 1,
    lexer_mode 4 2 1, lexer_mode 4 2 1, lexer_mode 4 2 1, lexer_mode 4 2 1, lexer_mode 4 2 1,
    lexer_mode 4 2 1, lexer_mode 4 2 18, lexer_mode 4 2 18, lexer_mode 4 2 18, lexer_mode 4 2 18,
    lexer_mode 4 2 1, lexer_mode 4 2 18, lexer_mode 4 2 1, lexer_mode 4 2 1, lexer_mode 4 2 18,
    lexer_mode 4 2 1, lexer_mode 4 2 1, lexer_mode 4 2 1, lexer_mode 4 2 1, lexer_mode 4 2 1,
    lexer_mode 4 2 1, lexer_mode 4 2 1, lexer_mode 4 2 1, lexer_mode 4 2 1, lexer_mode 4 2 1]"

definition ts_lex_modes_21 :: "TSLexerMode list" where "ts_lex_modes_21 = [
    lexer_mode 4 2 1, lexer_mode 4 2 18, lexer_mode 4 2 18, lexer_mode 4 2 18, lexer_mode 4 2 18,
    lexer_mode 4 2 18, lexer_mode 4 2 18, lexer_mode 4 2 1, lexer_mode 4 2 1, lexer_mode 4 2 1,
    lexer_mode 4 2 1, lexer_mode 4 2 1, lexer_mode 4 2 1, lexer_mode 4 2 1, lexer_mode 4 2 1,
    lexer_mode 4 2 1, lexer_mode 4 2 1, lexer_mode 4 2 1, lexer_mode 4 2 1, lexer_mode 4 2 1,
    lexer_mode 4 2 1, lexer_mode 4 2 1, lexer_mode 4 2 18, lexer_mode 4 2 18, lexer_mode 4 2 18,
    lexer_mode 4 2 18, lexer_mode 4 2 1, lexer_mode 4 2 18, lexer_mode 4 2 18, lexer_mode 4 2 18,
    lexer_mode 4 2 18, lexer_mode 4 2 18, lexer_mode 4 2 1, lexer_mode 4 2 1, lexer_mode 4 2 1,
    lexer_mode 4 2 1, lexer_mode 4 2 18, lexer_mode 4 2 1, lexer_mode 4 2 18, lexer_mode 4 2 1,
    lexer_mode 4 2 1, lexer_mode 4 2 1, lexer_mode 4 2 1, lexer_mode 4 2 1, lexer_mode 4 2 1,
    lexer_mode 4 2 1, lexer_mode 4 2 1, lexer_mode 4 2 1, lexer_mode 4 2 1, lexer_mode 4 2 1,
    lexer_mode 4 2 1, lexer_mode 4 6 18, lexer_mode 4 2 1, lexer_mode 4 2 18, lexer_mode 4 2 1,
    lexer_mode 4 2 18, lexer_mode 4 2 18, lexer_mode 4 2 18, lexer_mode 4 2 18, lexer_mode 4 2 18,
    lexer_mode 4 2 18, lexer_mode 4 2 18, lexer_mode 4 2 18, lexer_mode 4 6 18, lexer_mode 4 2 18,
    lexer_mode 4 2 18, lexer_mode 4 2 18, lexer_mode 4 2 18, lexer_mode 4 2 1, lexer_mode 4 2 18,
    lexer_mode 4 2 18, lexer_mode 4 2 18, lexer_mode 4 6 18, lexer_mode 4 2 18, lexer_mode 4 2 18,
    lexer_mode 4 2 18, lexer_mode 4 2 18, lexer_mode 4 6 18, lexer_mode 4 2 1, lexer_mode 4 6 18,
    lexer_mode 4 2 18, lexer_mode 4 6 18, lexer_mode 4 2 18, lexer_mode 4 6 18, lexer_mode 4 2 18,
    lexer_mode 4 6 18, lexer_mode 4 6 1, lexer_mode 4 2 1, lexer_mode 4 2 18, lexer_mode 4 2 18,
    lexer_mode 4 2 18, lexer_mode 4 2 18, lexer_mode 4 2 18, lexer_mode 4 2 18, lexer_mode 4 2 18,
    lexer_mode 4 2 18, lexer_mode 4 2 18, lexer_mode 4 2 18, lexer_mode 4 2 1, lexer_mode 4 2 18,
    lexer_mode 4 2 18, lexer_mode 4 2 18, lexer_mode 4 2 18, lexer_mode 4 2 18, lexer_mode 4 2 18,
    lexer_mode 4 2 18, lexer_mode 4 2 18, lexer_mode 4 2 18, lexer_mode 4 2 18, lexer_mode 4 2 18,
    lexer_mode 4 2 18, lexer_mode 4 2 18, lexer_mode 4 2 18, lexer_mode 4 2 18, lexer_mode 4 2 18,
    lexer_mode 4 2 18, lexer_mode 4 2 18, lexer_mode 4 2 18, lexer_mode 4 2 18, lexer_mode 4 2 18,
    lexer_mode 4 2 18, lexer_mode 4 2 18, lexer_mode 4 2 18, lexer_mode 4 2 18, lexer_mode 4 2 18,
    lexer_mode 4 2 18, lexer_mode 4 2 18, lexer_mode 4 2 18, lexer_mode 4 2 18, lexer_mode 4 2 18,
    lexer_mode 4 2 18, lexer_mode 4 2 18, lexer_mode 4 2 18, lexer_mode 4 2 18, lexer_mode 4 2 18,
    lexer_mode 4 2 18, lexer_mode 4 2 18, lexer_mode 4 2 18, lexer_mode 4 2 18, lexer_mode 4 2 18,
    lexer_mode 4 2 18, lexer_mode 4 2 18, lexer_mode 4 2 18, lexer_mode 4 2 18, lexer_mode 4 2 18,
    lexer_mode 4 2 18, lexer_mode 4 2 18, lexer_mode 4 2 18, lexer_mode 4 2 18, lexer_mode 4 2 18]"

definition ts_lex_modes_22 :: "TSLexerMode list" where "ts_lex_modes_22 = [
    lexer_mode 4 2 18, lexer_mode 4 2 18, lexer_mode 4 2 18, lexer_mode 4 2 18, lexer_mode 4 2 18,
    lexer_mode 4 2 18, lexer_mode 4 2 18, lexer_mode 4 2 18, lexer_mode 4 2 18, lexer_mode 4 2 18,
    lexer_mode 4 2 18, lexer_mode 4 2 18, lexer_mode 4 2 18, lexer_mode 4 2 18, lexer_mode 4 2 18,
    lexer_mode 4 2 18, lexer_mode 4 2 18, lexer_mode 4 2 18, lexer_mode 4 2 18, lexer_mode 4 2 18,
    lexer_mode 4 2 18, lexer_mode 4 2 18, lexer_mode 4 2 18, lexer_mode 4 2 18, lexer_mode 4 2 18,
    lexer_mode 4 2 18, lexer_mode 4 2 18, lexer_mode 4 2 18, lexer_mode 4 2 18, lexer_mode 4 2 18,
    lexer_mode 4 2 18, lexer_mode 4 2 18, lexer_mode 4 2 18, lexer_mode 4 2 18, lexer_mode 4 2 18,
    lexer_mode 4 2 18, lexer_mode 4 2 18, lexer_mode 4 2 18, lexer_mode 4 2 18, lexer_mode 4 2 18,
    lexer_mode 4 2 18, lexer_mode 4 2 18, lexer_mode 4 2 18, lexer_mode 4 2 18, lexer_mode 4 2 18,
    lexer_mode 4 2 18, lexer_mode 4 2 18, lexer_mode 4 2 18, lexer_mode 4 2 18, lexer_mode 4 2 18,
    lexer_mode 4 2 18, lexer_mode 4 2 18, lexer_mode 4 2 18, lexer_mode 4 2 18, lexer_mode 4 2 18,
    lexer_mode 4 2 18, lexer_mode 4 2 18, lexer_mode 4 2 18, lexer_mode 4 2 18, lexer_mode 4 2 18,
    lexer_mode 4 2 18, lexer_mode 4 2 18, lexer_mode 4 2 18, lexer_mode 4 2 18, lexer_mode 4 2 18,
    lexer_mode 4 2 18, lexer_mode 4 2 18, lexer_mode 4 2 18, lexer_mode 4 2 18, lexer_mode 4 2 18,
    lexer_mode 4 2 18, lexer_mode 4 2 18, lexer_mode 4 2 18, lexer_mode 4 2 18, lexer_mode 4 2 18,
    lexer_mode 4 2 18, lexer_mode 4 2 18, lexer_mode 4 2 18, lexer_mode 4 2 18, lexer_mode 4 2 18,
    lexer_mode 4 2 18, lexer_mode 4 2 18, lexer_mode 4 2 18, lexer_mode 4 2 18, lexer_mode 4 2 18,
    lexer_mode 4 2 18, lexer_mode 4 2 18, lexer_mode 4 2 18, lexer_mode 4 2 18, lexer_mode 4 2 18,
    lexer_mode 4 2 18, lexer_mode 4 2 18, lexer_mode 4 2 18, lexer_mode 4 2 18, lexer_mode 4 2 18,
    lexer_mode 4 2 18, lexer_mode 4 2 18, lexer_mode 4 2 18, lexer_mode 4 2 18, lexer_mode 4 2 18,
    lexer_mode 4 2 18, lexer_mode 4 2 18, lexer_mode 4 2 18, lexer_mode 4 2 18, lexer_mode 4 2 18,
    lexer_mode 4 2 18, lexer_mode 4 2 18, lexer_mode 4 2 1, lexer_mode 4 2 18, lexer_mode 4 2 18,
    lexer_mode 4 2 18, lexer_mode 4 2 18, lexer_mode 4 2 18, lexer_mode 4 2 18, lexer_mode 4 2 18,
    lexer_mode 4 2 18, lexer_mode 4 2 18, lexer_mode 4 2 18, lexer_mode 4 2 18, lexer_mode 4 2 18,
    lexer_mode 4 2 18, lexer_mode 4 2 18, lexer_mode 4 2 18, lexer_mode 4 2 18, lexer_mode 4 2 18,
    lexer_mode 4 2 18, lexer_mode 4 2 18, lexer_mode 4 2 18, lexer_mode 4 2 18, lexer_mode 4 2 18,
    lexer_mode 4 2 18, lexer_mode 4 2 18, lexer_mode 4 2 18, lexer_mode 4 2 18, lexer_mode 4 2 18,
    lexer_mode 4 2 18, lexer_mode 4 2 18, lexer_mode 4 2 18, lexer_mode 4 2 18, lexer_mode 4 2 18,
    lexer_mode 4 2 18, lexer_mode 4 2 18, lexer_mode 4 2 18, lexer_mode 4 2 18, lexer_mode 4 2 18,
    lexer_mode 4 2 18, lexer_mode 4 2 18, lexer_mode 4 2 18, lexer_mode 4 2 18, lexer_mode 4 2 18]"

definition ts_lex_modes_23 :: "TSLexerMode list" where "ts_lex_modes_23 = [
    lexer_mode 4 2 18, lexer_mode 4 2 18, lexer_mode 4 2 18, lexer_mode 4 2 18, lexer_mode 4 2 18,
    lexer_mode 4 2 18, lexer_mode 4 2 18, lexer_mode 4 2 18, lexer_mode 4 2 18, lexer_mode 4 2 18,
    lexer_mode 4 2 18, lexer_mode 4 2 1, lexer_mode 4 2 18, lexer_mode 4 2 18, lexer_mode 4 2 18,
    lexer_mode 4 2 18, lexer_mode 4 2 18, lexer_mode 4 2 18, lexer_mode 4 2 18, lexer_mode 4 2 18,
    lexer_mode 4 2 18, lexer_mode 4 2 18, lexer_mode 4 2 1, lexer_mode 4 2 18, lexer_mode 4 2 18,
    lexer_mode 4 2 18, lexer_mode 4 2 18, lexer_mode 4 2 18, lexer_mode 4 2 18, lexer_mode 4 2 18,
    lexer_mode 4 2 18, lexer_mode 4 2 18, lexer_mode 4 2 18, lexer_mode 4 2 18, lexer_mode 4 2 18,
    lexer_mode 4 2 18, lexer_mode 4 2 18, lexer_mode 4 2 18, lexer_mode 4 2 18, lexer_mode 4 2 18,
    lexer_mode 4 2 18, lexer_mode 4 2 18, lexer_mode 4 2 18, lexer_mode 4 2 18, lexer_mode 4 2 18,
    lexer_mode 4 2 18, lexer_mode 4 2 18, lexer_mode 4 2 1, lexer_mode 4 2 18, lexer_mode 4 2 18,
    lexer_mode 4 2 18, lexer_mode 4 2 18, lexer_mode 4 2 18, lexer_mode 4 2 18, lexer_mode 4 2 18,
    lexer_mode 4 2 18, lexer_mode 4 2 18, lexer_mode 4 2 18, lexer_mode 4 2 18, lexer_mode 4 2 18,
    lexer_mode 4 2 18, lexer_mode 4 2 18, lexer_mode 4 2 18, lexer_mode 4 2 18, lexer_mode 4 2 18,
    lexer_mode 4 2 18, lexer_mode 4 2 18, lexer_mode 4 2 18, lexer_mode 4 2 18, lexer_mode 4 2 18,
    lexer_mode 4 2 18, lexer_mode 4 2 18, lexer_mode 4 2 18, lexer_mode 4 2 18, lexer_mode 4 2 18,
    lexer_mode 4 2 18, lexer_mode 4 2 18, lexer_mode 4 2 1, lexer_mode 4 2 18, lexer_mode 4 2 18,
    lexer_mode 4 2 18, lexer_mode 4 2 1, lexer_mode 4 2 18, lexer_mode 4 2 1, lexer_mode 4 2 18,
    lexer_mode 4 2 18, lexer_mode 4 2 18, lexer_mode 4 2 18, lexer_mode 4 2 18, lexer_mode 4 2 18,
    lexer_mode 4 2 1, lexer_mode 4 2 1, lexer_mode 4 2 1, lexer_mode 4 2 1, lexer_mode 4 2 1,
    lexer_mode 4 2 1, lexer_mode 4 2 1, lexer_mode 4 2 1, lexer_mode 4 2 1, lexer_mode 4 2 1,
    lexer_mode 4 2 1, lexer_mode 4 2 1, lexer_mode 4 2 1, lexer_mode 4 2 1, lexer_mode 4 2 1,
    lexer_mode 4 2 1, lexer_mode 4 2 1, lexer_mode 4 2 1, lexer_mode 4 2 1, lexer_mode 4 2 1,
    lexer_mode 4 2 1, lexer_mode 4 2 1, lexer_mode 4 2 1, lexer_mode 4 2 1, lexer_mode 4 2 1,
    lexer_mode 4 2 1, lexer_mode 4 2 1, lexer_mode 4 2 1, lexer_mode 4 2 1, lexer_mode 4 2 1,
    lexer_mode 4 2 1, lexer_mode 4 2 1, lexer_mode 4 2 1, lexer_mode 4 2 1, lexer_mode 4 2 1,
    lexer_mode 4 2 1, lexer_mode 4 2 1, lexer_mode 4 2 1, lexer_mode 4 2 1, lexer_mode 4 2 1,
    lexer_mode 4 2 1, lexer_mode 4 2 1, lexer_mode 4 2 1, lexer_mode 4 2 1, lexer_mode 4 2 1,
    lexer_mode 4 2 1, lexer_mode 4 2 1, lexer_mode 4 2 1, lexer_mode 4 2 1, lexer_mode 4 2 1,
    lexer_mode 4 2 1, lexer_mode 4 2 1, lexer_mode 4 2 1, lexer_mode 4 2 1, lexer_mode 4 2 1,
    lexer_mode 4 2 1, lexer_mode 4 2 1, lexer_mode 4 2 1, lexer_mode 4 2 1, lexer_mode 4 2 1]"

definition ts_lex_modes_24 :: "TSLexerMode list" where "ts_lex_modes_24 = [
    lexer_mode 4 2 1, lexer_mode 4 2 1, lexer_mode 4 2 1, lexer_mode 4 2 1, lexer_mode 4 2 1,
    lexer_mode 4 2 1, lexer_mode 4 2 1, lexer_mode 4 2 1, lexer_mode 4 2 1, lexer_mode 4 2 1,
    lexer_mode 4 2 1, lexer_mode 4 2 1, lexer_mode 4 2 1, lexer_mode 4 2 1, lexer_mode 4 2 1,
    lexer_mode 4 2 1, lexer_mode 4 2 1, lexer_mode 4 2 1, lexer_mode 4 2 1, lexer_mode 4 2 1,
    lexer_mode 4 2 1, lexer_mode 4 2 1, lexer_mode 4 2 1, lexer_mode 4 2 1, lexer_mode 4 2 18,
    lexer_mode 4 2 18, lexer_mode 4 2 18, lexer_mode 4 2 18, lexer_mode 4 2 18, lexer_mode 4 8 22,
    lexer_mode 4 8 22, lexer_mode 4 8 22, lexer_mode 4 8 22, lexer_mode 4 8 22, lexer_mode 4 8 22,
    lexer_mode 4 8 22, lexer_mode 4 8 22, lexer_mode 53 6 22, lexer_mode 53 6 22,
    lexer_mode 53 7 1, lexer_mode 53 6 1, lexer_mode 53 6 1, lexer_mode 53 7 1, lexer_mode 53 6 1,
    lexer_mode 53 6 1, lexer_mode 53 7 22, lexer_mode 53 6 1, lexer_mode 53 7 1, lexer_mode 53 7 1,
    lexer_mode 53 6 1, lexer_mode 53 7 22, lexer_mode 53 6 1, lexer_mode 53 6 1, lexer_mode 53 7 1,
    lexer_mode 53 7 22, lexer_mode 53 7 1, lexer_mode 53 7 1, lexer_mode 53 7 22,
    lexer_mode 53 6 22, lexer_mode 53 7 1, lexer_mode 4 6 1, lexer_mode 6 5 19, lexer_mode 4 6 1,
    lexer_mode 4 6 1, lexer_mode 4 6 1, lexer_mode 6 5 19, lexer_mode 4 6 1, lexer_mode 4 2 1,
    lexer_mode 53 2 1, lexer_mode 53 2 1, lexer_mode 53 2 1, lexer_mode 53 2 1, lexer_mode 53 6 1,
    lexer_mode 4 7 23, lexer_mode 53 6 18, lexer_mode 4 7 23, lexer_mode 53 6 18,
    lexer_mode 53 6 18, lexer_mode 53 6 18, lexer_mode 53 6 18, lexer_mode 53 6 18,
    lexer_mode 53 6 18, lexer_mode 53 6 18, lexer_mode 53 6 18, lexer_mode 4 7 23,
    lexer_mode 53 6 18, lexer_mode 53 6 18, lexer_mode 53 6 18, lexer_mode 53 6 18,
    lexer_mode 53 6 18, lexer_mode 53 6 18, lexer_mode 53 6 18, lexer_mode 53 6 18,
    lexer_mode 53 6 1, lexer_mode 53 6 1, lexer_mode 53 6 18, lexer_mode 53 6 1, lexer_mode 53 6 1,
    lexer_mode 53 6 1, lexer_mode 53 6 18, lexer_mode 53 6 18, lexer_mode 53 6 18,
    lexer_mode 53 6 18, lexer_mode 4 7 23, lexer_mode 53 6 18, lexer_mode 53 6 18,
    lexer_mode 4 7 23, lexer_mode 4 7 23, lexer_mode 53 6 18, lexer_mode 53 6 18,
    lexer_mode 53 6 18, lexer_mode 53 6 18, lexer_mode 4 7 23, lexer_mode 53 6 18,
    lexer_mode 53 8 24, lexer_mode 53 6 18, lexer_mode 4 7 23, lexer_mode 4 7 1,
    lexer_mode 53 6 18, lexer_mode 6 2 1, lexer_mode 53 6 18, lexer_mode 53 6 18,
    lexer_mode 53 6 18, lexer_mode 53 6 18, lexer_mode 53 6 18, lexer_mode 4 7 23,
    lexer_mode 4 7 23, lexer_mode 6 2 1, lexer_mode 4 7 23, lexer_mode 53 6 18, lexer_mode 53 6 18,
    lexer_mode 53 6 18, lexer_mode 53 6 18, lexer_mode 53 6 18, lexer_mode 53 6 18,
    lexer_mode 53 6 18, lexer_mode 53 6 18, lexer_mode 53 6 18, lexer_mode 53 7 1,
    lexer_mode 53 6 18, lexer_mode 53 6 18, lexer_mode 53 6 18, lexer_mode 4 7 23,
    lexer_mode 4 7 23, lexer_mode 53 6 18, lexer_mode 53 6 18, lexer_mode 53 6 18,
    lexer_mode 53 6 18, lexer_mode 53 6 18, lexer_mode 53 6 18]"

definition ts_lex_modes_25 :: "TSLexerMode list" where "ts_lex_modes_25 = [
    lexer_mode 53 7 22, lexer_mode 4 7 23, lexer_mode 4 7 23, lexer_mode 4 7 23, lexer_mode 4 7 23,
    lexer_mode 4 7 23, lexer_mode 53 7 22, lexer_mode 53 6 22, lexer_mode 53 7 22,
    lexer_mode 4 7 23, lexer_mode 4 7 1, lexer_mode 53 8 22, lexer_mode 53 7 22,
    lexer_mode 53 6 22, lexer_mode 53 7 22, lexer_mode 53 6 22, lexer_mode 53 7 1,
    lexer_mode 53 8 22, lexer_mode 4 7 23, lexer_mode 4 7 23, lexer_mode 53 8 22, lexer_mode 4 7 1,
    lexer_mode 4 7 1, lexer_mode 4 7 23, lexer_mode 4 7 23, lexer_mode 4 7 23, lexer_mode 4 7 23,
    lexer_mode 4 7 23, lexer_mode 4 7 23, lexer_mode 4 7 23, lexer_mode 53 8 22, lexer_mode 4 7 1,
    lexer_mode 4 7 1, lexer_mode 4 7 23, lexer_mode 53 7 22, lexer_mode 53 6 22, lexer_mode 4 7 23,
    lexer_mode 4 7 23, lexer_mode 53 2 1, lexer_mode 4 7 23, lexer_mode 4 7 23, lexer_mode 53 7 22,
    lexer_mode 4 7 23, lexer_mode 4 7 23, lexer_mode 53 7 22, lexer_mode 53 6 22,
    lexer_mode 53 8 22, lexer_mode 4 7 23, lexer_mode 4 7 23, lexer_mode 53 7 22,
    lexer_mode 53 6 22, lexer_mode 4 7 23, lexer_mode 4 7 23, lexer_mode 4 7 23, lexer_mode 4 7 23,
    lexer_mode 53 8 22, lexer_mode 53 7 22, lexer_mode 53 6 22, lexer_mode 53 7 1,
    lexer_mode 4 7 1, lexer_mode 53 6 22, lexer_mode 53 7 22, lexer_mode 53 7 1,
    lexer_mode 53 8 22, lexer_mode 4 7 23, lexer_mode 4 7 23, lexer_mode 4 7 23, lexer_mode 4 7 23,
    lexer_mode 53 8 22, lexer_mode 4 7 23, lexer_mode 4 7 23, lexer_mode 4 7 23, lexer_mode 4 7 23,
    lexer_mode 53 6 1, lexer_mode 53 7 1, lexer_mode 53 8 1, lexer_mode 4 8 1, lexer_mode 53 8 1,
    lexer_mode 53 7 1, lexer_mode 53 7 1, lexer_mode 53 8 1, lexer_mode 53 7 1, lexer_mode 53 7 1,
    lexer_mode 53 6 1, lexer_mode 53 6 1, lexer_mode 53 7 1, lexer_mode 53 8 1, lexer_mode 53 8 1,
    lexer_mode 53 6 1, lexer_mode 53 8 1, lexer_mode 53 6 1, lexer_mode 4 2 1, lexer_mode 53 8 1,
    lexer_mode 53 8 1, lexer_mode 53 6 1, lexer_mode 53 8 23, lexer_mode 4 2 1, lexer_mode 53 7 1,
    lexer_mode 53 7 1, lexer_mode 53 8 23, lexer_mode 53 6 1, lexer_mode 53 6 1, lexer_mode 4 8 23,
    lexer_mode 4 2 25, lexer_mode 54 2 1, lexer_mode 53 2 1, lexer_mode 53 9 1, lexer_mode 4 8 23,
    lexer_mode 53 10 1, lexer_mode 54 3 1, lexer_mode 53 6 1, lexer_mode 53 2 1,
    lexer_mode 53 5 24, lexer_mode 4 8 23, lexer_mode 4 8 23, lexer_mode 53 9 1, lexer_mode 4 8 23,
    lexer_mode 4 8 23, lexer_mode 54 3 1, lexer_mode 4 8 23, lexer_mode 54 2 1, lexer_mode 53 5 1,
    lexer_mode 4 8 23, lexer_mode 4 8 23, lexer_mode 4 8 23, lexer_mode 53 2 1, lexer_mode 4 8 23,
    lexer_mode 4 8 23, lexer_mode 4 8 23, lexer_mode 4 8 23, lexer_mode 4 8 23, lexer_mode 4 8 23,
    lexer_mode 53 7 24, lexer_mode 53 10 1, lexer_mode 53 5 24, lexer_mode 53 6 23,
    lexer_mode 53 5 1, lexer_mode 4 7 1, lexer_mode 53 6 23, lexer_mode 4 7 1, lexer_mode 53 6 23,
    lexer_mode 4 2 1, lexer_mode 53 6 23, lexer_mode 53 6 23, lexer_mode 53 6 23,
    lexer_mode 53 5 24, lexer_mode 53 6 1, lexer_mode 53 6 23, lexer_mode 53 6 23,
    lexer_mode 53 6 1]"

definition ts_lex_modes_26 :: "TSLexerMode list" where "ts_lex_modes_26 = [
    lexer_mode 53 2 1, lexer_mode 53 8 23, lexer_mode 53 8 23, lexer_mode 53 2 22,
    lexer_mode 53 8 23, lexer_mode 53 2 1, lexer_mode 4 7 1, lexer_mode 53 8 23, lexer_mode 53 2 1,
    lexer_mode 53 9 1, lexer_mode 53 2 1, lexer_mode 53 2 1, lexer_mode 53 8 23, lexer_mode 54 2 1,
    lexer_mode 53 2 1, lexer_mode 53 3 1, lexer_mode 53 3 1, lexer_mode 53 5 1, lexer_mode 53 5 1,
    lexer_mode 53 8 23, lexer_mode 53 10 1, lexer_mode 54 3 1, lexer_mode 53 2 1,
    lexer_mode 53 2 1, lexer_mode 53 8 23, lexer_mode 53 2 1, lexer_mode 53 2 1, lexer_mode 53 2 1,
    lexer_mode 4 2 19, lexer_mode 53 7 1, lexer_mode 4 6 1, lexer_mode 53 8 23, lexer_mode 53 2 1,
    lexer_mode 53 5 1, lexer_mode 53 2 1, lexer_mode 53 6 1, lexer_mode 4 2 19, lexer_mode 53 6 1,
    lexer_mode 53 7 23, lexer_mode 53 6 1, lexer_mode 53 2 22, lexer_mode 53 3 1,
    lexer_mode 53 7 23, lexer_mode 53 2 1, lexer_mode 53 2 1, lexer_mode 53 3 1, lexer_mode 53 2 1,
    lexer_mode 53 5 1, lexer_mode 53 5 1, lexer_mode 53 2 1, lexer_mode 53 2 1, lexer_mode 53 6 1,
    lexer_mode 53 8 23, lexer_mode 53 2 1, lexer_mode 53 2 23, lexer_mode 53 7 1,
    lexer_mode 53 2 1, lexer_mode 53 8 23, lexer_mode 53 8 23, lexer_mode 53 2 23,
    lexer_mode 53 2 1, lexer_mode 53 5 1, lexer_mode 53 5 1, lexer_mode 53 2 22,
    lexer_mode 53 2 23, lexer_mode 53 2 1, lexer_mode 53 2 22, lexer_mode 53 6 1,
    lexer_mode 53 2 23, lexer_mode 53 2 1, lexer_mode 53 2 22, lexer_mode 53 2 1,
    lexer_mode 53 2 22, lexer_mode 53 2 22, lexer_mode 53 2 1, lexer_mode 53 2 1,
    lexer_mode 53 2 1, lexer_mode 53 2 1, lexer_mode 53 2 1, lexer_mode 53 2 1, lexer_mode 53 2 1,
    lexer_mode 53 2 1, lexer_mode 53 2 1, lexer_mode 53 8 23, lexer_mode 53 8 23,
    lexer_mode 53 2 1, lexer_mode 53 2 22, lexer_mode 53 8 23, lexer_mode 53 2 1,
    lexer_mode 53 8 23, lexer_mode 53 2 1, lexer_mode 53 2 1, lexer_mode 53 2 1, lexer_mode 53 2 1,
    lexer_mode 53 2 1, lexer_mode 53 2 1, lexer_mode 53 8 23, lexer_mode 53 6 1,
    lexer_mode 53 6 23, lexer_mode 53 6 23, lexer_mode 53 6 23, lexer_mode 53 6 1,
    lexer_mode 53 6 23, lexer_mode 53 6 23, lexer_mode 53 10 26, lexer_mode 53 9 26,
    lexer_mode 53 10 26, lexer_mode 53 6 23, lexer_mode 53 3 1, lexer_mode 53 2 1,
    lexer_mode 53 10 26, lexer_mode 53 2 1, lexer_mode 53 10 26, lexer_mode 53 2 1,
    lexer_mode 53 2 1, lexer_mode 53 9 26, lexer_mode 53 6 23, lexer_mode 53 2 1,
    lexer_mode 53 2 1, lexer_mode 53 2 1, lexer_mode 53 6 1, lexer_mode 53 2 23, lexer_mode 53 2 1,
    lexer_mode 53 6 23, lexer_mode 53 2 23, lexer_mode 53 2 23, lexer_mode 53 2 1,
    lexer_mode 53 6 23, lexer_mode 53 2 1, lexer_mode 53 2 23, lexer_mode 53 2 1,
    lexer_mode 53 9 26, lexer_mode 53 2 1, lexer_mode 53 2 1, lexer_mode 53 9 26,
    lexer_mode 53 2 1, lexer_mode 53 6 1, lexer_mode 53 2 1, lexer_mode 53 2 23,
    lexer_mode 53 2 23, lexer_mode 53 6 23, lexer_mode 53 2 23, lexer_mode 53 2 23,
    lexer_mode 53 2 23, lexer_mode 53 2 23, lexer_mode 53 2 1, lexer_mode 53 6 23,
    lexer_mode 53 6 23, lexer_mode 53 2 1, lexer_mode 53 2 1]"

definition ts_lex_modes_27 :: "TSLexerMode list" where "ts_lex_modes_27 = [
    lexer_mode 53 2 1, lexer_mode 53 6 23, lexer_mode 53 2 23, lexer_mode 53 2 23,
    lexer_mode 53 6 23, lexer_mode 53 2 1, lexer_mode 53 9 26, lexer_mode 53 6 23,
    lexer_mode 53 6 23, lexer_mode 53 6 1, lexer_mode 53 6 23, lexer_mode 53 10 26,
    lexer_mode 53 2 1, lexer_mode 53 6 1, lexer_mode 53 2 1, lexer_mode 53 6 23, lexer_mode 53 2 1,
    lexer_mode 53 2 1, lexer_mode 53 2 23, lexer_mode 53 2 1, lexer_mode 53 2 23,
    lexer_mode 53 10 1, lexer_mode 54 3 1, lexer_mode 54 2 1, lexer_mode 53 2 1,
    lexer_mode 53 2 23, lexer_mode 53 2 23, lexer_mode 53 2 1, lexer_mode 53 2 23,
    lexer_mode 53 2 23, lexer_mode 53 2 23, lexer_mode 54 2 1, lexer_mode 53 2 23,
    lexer_mode 53 10 1, lexer_mode 53 2 23, lexer_mode 53 2 23, lexer_mode 53 2 23,
    lexer_mode 53 2 1, lexer_mode 53 2 1, lexer_mode 53 2 1, lexer_mode 53 2 23,
    lexer_mode 53 2 23, lexer_mode 53 2 23, lexer_mode 53 2 23, lexer_mode 53 2 1,
    lexer_mode 54 2 1, lexer_mode 53 2 1, lexer_mode 53 2 23, lexer_mode 53 2 23,
    lexer_mode 53 2 1, lexer_mode 53 2 1, lexer_mode 53 2 23, lexer_mode 53 2 23,
    lexer_mode 53 2 23, lexer_mode 53 2 23, lexer_mode 53 2 23, lexer_mode 53 2 1,
    lexer_mode 53 2 23, lexer_mode 54 3 1, lexer_mode 53 2 23, lexer_mode 53 2 23,
    lexer_mode 53 2 23, lexer_mode 53 2 1, lexer_mode 53 2 1, lexer_mode 53 2 1, lexer_mode 53 9 1,
    lexer_mode 53 2 23, lexer_mode 53 2 23, lexer_mode 53 2 1, lexer_mode 54 2 1,
    lexer_mode 53 2 23, lexer_mode 53 2 1, lexer_mode 53 2 23, lexer_mode 53 2 1,
    lexer_mode 53 10 1, lexer_mode 53 2 23, lexer_mode 53 9 1, lexer_mode 54 2 1,
    lexer_mode 53 9 1, lexer_mode 53 2 23, lexer_mode 53 2 23, lexer_mode 53 2 23,
    lexer_mode 53 2 23, lexer_mode 53 2 23, lexer_mode 53 2 23, lexer_mode 53 2 1,
    lexer_mode 53 2 23, lexer_mode 53 2 23, lexer_mode 53 2 23, lexer_mode 53 2 1,
    lexer_mode 54 2 1, lexer_mode 53 2 23, lexer_mode 53 2 23, lexer_mode 53 2 23,
    lexer_mode 53 2 1, lexer_mode 53 2 1, lexer_mode 53 2 23, lexer_mode 53 2 23,
    lexer_mode 53 10 1, lexer_mode 53 2 1, lexer_mode 53 2 1, lexer_mode 53 9 1,
    lexer_mode 53 2 23, lexer_mode 53 2 23, lexer_mode 53 2 23, lexer_mode 53 2 23,
    lexer_mode 54 3 1, lexer_mode 53 2 23, lexer_mode 53 2 23, lexer_mode 53 2 1,
    lexer_mode 53 2 23, lexer_mode 54 3 1, lexer_mode 53 2 23, lexer_mode 53 2 23,
    lexer_mode 53 2 1, lexer_mode 53 2 23, lexer_mode 53 2 23, lexer_mode 53 2 23,
    lexer_mode 53 2 23, lexer_mode 53 2 23, lexer_mode 53 2 23, lexer_mode 53 2 1,
    lexer_mode 53 2 1, lexer_mode 53 2 1, lexer_mode 53 2 23, lexer_mode 54 2 1,
    lexer_mode 53 2 23, lexer_mode 53 2 1, lexer_mode 53 2 1, lexer_mode 53 2 23,
    lexer_mode 53 2 1, lexer_mode 53 2 1, lexer_mode 53 2 23, lexer_mode 53 2 23,
    lexer_mode 53 2 23, lexer_mode 53 2 1, lexer_mode 54 3 1, lexer_mode 53 2 1,
    lexer_mode 53 2 23, lexer_mode 53 2 1, lexer_mode 54 3 1, lexer_mode 53 10 1,
    lexer_mode 53 2 23, lexer_mode 53 2 23, lexer_mode 53 2 23, lexer_mode 53 2 1,
    lexer_mode 53 2 23, lexer_mode 53 10 1, lexer_mode 53 2 23, lexer_mode 54 3 1]"

definition ts_lex_modes_28 :: "TSLexerMode list" where "ts_lex_modes_28 = [
    lexer_mode 53 2 23, lexer_mode 53 2 1, lexer_mode 53 2 1, lexer_mode 54 2 1, lexer_mode 53 2 1,
    lexer_mode 53 2 1, lexer_mode 53 2 23, lexer_mode 53 2 23, lexer_mode 53 2 23,
    lexer_mode 53 2 23, lexer_mode 53 2 23, lexer_mode 53 2 23, lexer_mode 53 2 23,
    lexer_mode 53 2 23, lexer_mode 53 2 23, lexer_mode 53 2 23, lexer_mode 53 2 23,
    lexer_mode 53 2 23, lexer_mode 53 2 23, lexer_mode 53 2 23, lexer_mode 53 2 23,
    lexer_mode 53 2 23, lexer_mode 53 2 23, lexer_mode 53 2 23, lexer_mode 53 2 23,
    lexer_mode 53 2 23, lexer_mode 53 2 23, lexer_mode 54 3 1, lexer_mode 53 2 23,
    lexer_mode 54 3 1, lexer_mode 53 2 23, lexer_mode 53 2 23, lexer_mode 53 2 1,
    lexer_mode 53 2 23, lexer_mode 53 2 1, lexer_mode 53 2 23, lexer_mode 53 2 1,
    lexer_mode 53 2 23, lexer_mode 53 2 23, lexer_mode 53 2 23, lexer_mode 53 2 23,
    lexer_mode 53 2 23, lexer_mode 53 2 23, lexer_mode 53 2 23, lexer_mode 53 2 1,
    lexer_mode 53 2 23, lexer_mode 53 2 1, lexer_mode 53 2 1, lexer_mode 53 2 23,
    lexer_mode 53 2 23, lexer_mode 53 2 23, lexer_mode 53 2 1, lexer_mode 53 2 23,
    lexer_mode 53 2 23, lexer_mode 53 2 23, lexer_mode 53 2 23, lexer_mode 53 2 23,
    lexer_mode 53 2 1, lexer_mode 53 2 23, lexer_mode 53 2 1, lexer_mode 53 2 1,
    lexer_mode 53 2 23, lexer_mode 53 2 23, lexer_mode 53 2 1, lexer_mode 53 2 23,
    lexer_mode 53 9 1, lexer_mode 53 2 23, lexer_mode 53 2 1, lexer_mode 53 2 23,
    lexer_mode 53 2 23, lexer_mode 53 9 1, lexer_mode 54 2 1, lexer_mode 53 2 23,
    lexer_mode 53 2 1, lexer_mode 53 2 23, lexer_mode 53 2 23, lexer_mode 53 2 23,
    lexer_mode 53 2 1, lexer_mode 53 2 23, lexer_mode 53 2 23, lexer_mode 53 2 23,
    lexer_mode 53 2 1, lexer_mode 53 2 1, lexer_mode 53 3 1, lexer_mode 53 2 1, lexer_mode 53 2 1,
    lexer_mode 53 2 1, lexer_mode 53 2 1, lexer_mode 53 2 1, lexer_mode 53 2 1, lexer_mode 53 3 1,
    lexer_mode 53 3 1, lexer_mode 53 3 1, lexer_mode 53 3 1, lexer_mode 53 3 1, lexer_mode 53 3 1,
    lexer_mode 53 2 1, lexer_mode 53 2 1, lexer_mode 53 2 1, lexer_mode 53 3 1, lexer_mode 53 3 1,
    lexer_mode 53 3 1, lexer_mode 53 3 1, lexer_mode 53 2 1, lexer_mode 53 2 1, lexer_mode 53 3 1,
    lexer_mode 53 3 1, lexer_mode 53 2 27, lexer_mode 53 2 27, lexer_mode 53 3 27,
    lexer_mode 53 3 27, lexer_mode 53 2 1, lexer_mode 53 3 1, lexer_mode 53 3 1, lexer_mode 53 3 1,
    lexer_mode 53 3 1, lexer_mode 53 3 1, lexer_mode 53 3 1, lexer_mode 53 3 1, lexer_mode 53 3 1,
    lexer_mode 53 3 1, lexer_mode 53 3 1, lexer_mode 53 3 1, lexer_mode 53 3 1, lexer_mode 53 3 1,
    lexer_mode 53 3 1, lexer_mode 53 3 1, lexer_mode 53 3 1, lexer_mode 53 3 1, lexer_mode 53 3 1,
    lexer_mode 53 3 1, lexer_mode 53 3 1, lexer_mode 53 3 1, lexer_mode 53 3 1, lexer_mode 53 3 1,
    lexer_mode 53 3 1, lexer_mode 53 3 1, lexer_mode 53 3 1, lexer_mode 53 3 1, lexer_mode 53 3 1,
    lexer_mode 53 3 1, lexer_mode 53 3 1, lexer_mode 53 3 1, lexer_mode 53 3 1, lexer_mode 53 3 1,
    lexer_mode 53 3 1, lexer_mode 53 3 1, lexer_mode 53 3 1, lexer_mode 53 3 1, lexer_mode 53 3 1]"

definition ts_lex_modes_29 :: "TSLexerMode list" where "ts_lex_modes_29 = [
    lexer_mode 53 3 1, lexer_mode 53 3 1, lexer_mode 53 3 1, lexer_mode 53 3 1, lexer_mode 53 3 1,
    lexer_mode 53 3 1, lexer_mode 53 3 1, lexer_mode 53 3 1, lexer_mode 53 3 1, lexer_mode 53 3 1,
    lexer_mode 53 3 1, lexer_mode 53 3 1, lexer_mode 53 3 1, lexer_mode 53 3 1, lexer_mode 53 3 1,
    lexer_mode 53 3 1, lexer_mode 53 3 1, lexer_mode 53 3 1, lexer_mode 53 3 1, lexer_mode 53 3 1,
    lexer_mode 53 3 1, lexer_mode 53 3 1, lexer_mode 53 3 1, lexer_mode 53 3 1, lexer_mode 53 3 1,
    lexer_mode 53 3 1, lexer_mode 53 3 1, lexer_mode 53 3 1, lexer_mode 53 3 1, lexer_mode 53 3 1,
    lexer_mode 53 3 1, lexer_mode 53 3 1, lexer_mode 53 3 1, lexer_mode 53 3 1, lexer_mode 53 3 1,
    lexer_mode 53 3 1, lexer_mode 53 3 1, lexer_mode 53 3 1, lexer_mode 53 3 1, lexer_mode 53 3 1,
    lexer_mode 53 3 1, lexer_mode 53 3 1, lexer_mode 53 3 1, lexer_mode 53 3 1, lexer_mode 53 3 1,
    lexer_mode 53 3 1, lexer_mode 53 3 1, lexer_mode 53 3 1, lexer_mode 53 3 1, lexer_mode 53 3 1,
    lexer_mode 53 3 1, lexer_mode 53 3 1, lexer_mode 53 3 1, lexer_mode 53 3 1, lexer_mode 53 3 1,
    lexer_mode 53 3 1, lexer_mode 53 3 1, lexer_mode 53 3 1, lexer_mode 53 3 1, lexer_mode 53 3 1,
    lexer_mode 53 3 1, lexer_mode 53 3 1, lexer_mode 53 3 1, lexer_mode 53 3 1, lexer_mode 53 3 1,
    lexer_mode 53 3 1, lexer_mode 53 3 1, lexer_mode 53 3 1, lexer_mode 53 3 1, lexer_mode 53 3 1,
    lexer_mode 53 3 1, lexer_mode 53 3 1, lexer_mode 53 3 1, lexer_mode 53 3 1, lexer_mode 53 3 1,
    lexer_mode 53 3 1, lexer_mode 53 3 1, lexer_mode 53 3 1, lexer_mode 53 3 1, lexer_mode 53 3 1,
    lexer_mode 53 3 1, lexer_mode 53 3 1, lexer_mode 53 3 1, lexer_mode 53 3 1, lexer_mode 53 3 1,
    lexer_mode 53 3 1, lexer_mode 53 3 1, lexer_mode 53 3 1, lexer_mode 53 3 1, lexer_mode 53 3 1,
    lexer_mode 53 3 1, lexer_mode 53 3 1, lexer_mode 53 3 1, lexer_mode 53 3 1, lexer_mode 53 2 1,
    lexer_mode 53 2 1, lexer_mode 53 3 1, lexer_mode 53 2 1, lexer_mode 53 2 1, lexer_mode 53 2 1,
    lexer_mode 53 3 1, lexer_mode 53 2 1, lexer_mode 53 3 1, lexer_mode 53 3 1, lexer_mode 53 2 1,
    lexer_mode 53 3 1, lexer_mode 53 2 1, lexer_mode 53 2 1, lexer_mode 53 2 1, lexer_mode 53 2 1,
    lexer_mode 53 3 1, lexer_mode 53 2 1, lexer_mode 53 3 1, lexer_mode 53 2 1, lexer_mode 53 2 1,
    lexer_mode 53 2 1, lexer_mode 53 2 1, lexer_mode 53 2 1, lexer_mode 53 2 1, lexer_mode 53 3 1,
    lexer_mode 53 3 1, lexer_mode 53 2 1, lexer_mode 53 2 1, lexer_mode 53 2 1, lexer_mode 53 3 1,
    lexer_mode 53 2 1, lexer_mode 53 2 1, lexer_mode 53 2 1, lexer_mode 53 2 1, lexer_mode 53 3 1,
    lexer_mode 53 2 1, lexer_mode 53 3 1, lexer_mode 53 2 1, lexer_mode 53 3 1, lexer_mode 53 3 1,
    lexer_mode 53 2 1, lexer_mode 53 2 1, lexer_mode 53 3 1, lexer_mode 53 2 1, lexer_mode 53 2 1,
    lexer_mode 53 2 1, lexer_mode 53 3 1, lexer_mode 53 2 1, lexer_mode 53 2 1, lexer_mode 53 3 1,
    lexer_mode 53 2 1, lexer_mode 53 2 1, lexer_mode 53 2 1, lexer_mode 53 2 1, lexer_mode 53 2 1]"

definition ts_lex_modes_30 :: "TSLexerMode list" where "ts_lex_modes_30 = [
    lexer_mode 53 2 1, lexer_mode 53 2 1, lexer_mode 53 3 1, lexer_mode 53 3 1, lexer_mode 53 2 1,
    lexer_mode 53 3 1, lexer_mode 53 2 1, lexer_mode 53 3 1, lexer_mode 53 2 1, lexer_mode 53 3 1,
    lexer_mode 53 3 1, lexer_mode 53 2 1, lexer_mode 53 2 1, lexer_mode 53 2 1, lexer_mode 53 2 1,
    lexer_mode 53 2 1, lexer_mode 53 2 1, lexer_mode 53 2 1, lexer_mode 53 2 1, lexer_mode 53 3 1,
    lexer_mode 53 3 1, lexer_mode 53 2 1, lexer_mode 53 3 1, lexer_mode 53 2 1, lexer_mode 53 3 1,
    lexer_mode 53 2 1, lexer_mode 53 2 1, lexer_mode 53 2 1, lexer_mode 53 3 1, lexer_mode 53 2 1,
    lexer_mode 53 2 1, lexer_mode 53 2 1, lexer_mode 53 3 1, lexer_mode 53 3 1, lexer_mode 53 2 1,
    lexer_mode 53 2 1, lexer_mode 53 3 1, lexer_mode 53 2 1, lexer_mode 53 3 1, lexer_mode 53 2 1,
    lexer_mode 53 2 1, lexer_mode 53 3 1, lexer_mode 53 2 1, lexer_mode 53 3 1, lexer_mode 53 3 1,
    lexer_mode 53 2 1, lexer_mode 53 3 1, lexer_mode 53 3 1, lexer_mode 53 3 1, lexer_mode 53 3 1,
    lexer_mode 53 2 1, lexer_mode 53 2 1, lexer_mode 53 2 1, lexer_mode 53 2 1, lexer_mode 53 2 1,
    lexer_mode 53 2 1, lexer_mode 53 2 1, lexer_mode 53 3 1, lexer_mode 53 3 1, lexer_mode 53 3 1,
    lexer_mode 53 2 1, lexer_mode 53 3 1, lexer_mode 7 11 0, lexer_mode 53 2 1, lexer_mode 53 2 1,
    lexer_mode 53 2 1, lexer_mode 53 3 1, lexer_mode 53 2 1, lexer_mode 53 2 1, lexer_mode 53 3 1,
    lexer_mode 53 3 1, lexer_mode 53 3 1, lexer_mode 53 3 1, lexer_mode 7 11 0, lexer_mode 53 2 1,
    lexer_mode 53 3 1, lexer_mode 53 3 1, lexer_mode 53 2 1, lexer_mode 53 2 1, lexer_mode 53 2 1,
    lexer_mode 53 3 1, lexer_mode 53 2 1, lexer_mode 53 3 1, lexer_mode 53 3 1, lexer_mode 53 3 1,
    lexer_mode 53 3 1, lexer_mode 53 2 1, lexer_mode 53 3 1, lexer_mode 53 3 1, lexer_mode 53 2 1,
    lexer_mode 53 3 1, lexer_mode 53 2 1, lexer_mode 53 3 1, lexer_mode 53 3 1, lexer_mode 53 3 1,
    lexer_mode 53 2 1, lexer_mode 53 3 1, lexer_mode 53 2 1, lexer_mode 53 3 1, lexer_mode 53 2 1,
    lexer_mode 53 3 1, lexer_mode 53 2 1, lexer_mode 53 3 1, lexer_mode 53 3 1, lexer_mode 53 2 1,
    lexer_mode 53 2 1, lexer_mode 53 2 1, lexer_mode 53 2 1, lexer_mode 53 2 1, lexer_mode 53 2 1,
    lexer_mode 53 2 1, lexer_mode 53 2 1, lexer_mode 53 2 1, lexer_mode 53 2 1, lexer_mode 53 2 1,
    lexer_mode 53 2 1, lexer_mode 53 2 1, lexer_mode 53 2 1, lexer_mode 53 3 1, lexer_mode 53 2 1,
    lexer_mode 53 2 1, lexer_mode 53 3 1, lexer_mode 53 3 1, lexer_mode 53 3 1, lexer_mode 53 3 1,
    lexer_mode 53 3 1, lexer_mode 53 2 1, lexer_mode 53 3 1, lexer_mode 53 3 1, lexer_mode 53 2 1,
    lexer_mode 53 3 1, lexer_mode 53 3 1, lexer_mode 53 3 1, lexer_mode 53 3 1, lexer_mode 53 3 1,
    lexer_mode 53 2 1, lexer_mode 53 2 1, lexer_mode 53 3 1, lexer_mode 53 3 1, lexer_mode 53 3 1,
    lexer_mode 53 3 1, lexer_mode 53 2 1, lexer_mode 53 3 1, lexer_mode 53 3 1, lexer_mode 53 3 1,
    lexer_mode 53 3 1, lexer_mode 53 3 1, lexer_mode 53 3 1, lexer_mode 53 3 1, lexer_mode 53 2 1]"

definition ts_lex_modes_31 :: "TSLexerMode list" where "ts_lex_modes_31 = [
    lexer_mode 53 3 1, lexer_mode 53 3 1, lexer_mode 53 2 1, lexer_mode 53 3 1, lexer_mode 53 3 1,
    lexer_mode 53 3 1, lexer_mode 53 2 1, lexer_mode 53 3 1, lexer_mode 53 3 1, lexer_mode 53 3 1,
    lexer_mode 53 3 1, lexer_mode 53 3 1, lexer_mode 53 2 1, lexer_mode 53 3 1, lexer_mode 53 3 1,
    lexer_mode 53 3 1, lexer_mode 53 3 1, lexer_mode 53 3 1, lexer_mode 53 3 1, lexer_mode 53 2 1,
    lexer_mode 53 3 1, lexer_mode 53 3 1, lexer_mode 53 3 1, lexer_mode 53 2 1, lexer_mode 53 2 1,
    lexer_mode 53 2 1, lexer_mode 53 2 1, lexer_mode 53 2 1, lexer_mode 53 2 1, lexer_mode 53 2 1,
    lexer_mode 53 2 1, lexer_mode 53 2 1, lexer_mode 53 2 1, lexer_mode 53 2 1, lexer_mode 53 2 1,
    lexer_mode 53 2 1, lexer_mode 53 2 1, lexer_mode 53 3 1, lexer_mode 53 3 1, lexer_mode 53 2 1,
    lexer_mode 53 2 1, lexer_mode 53 2 1, lexer_mode 53 3 1, lexer_mode 53 3 1, lexer_mode 53 3 1,
    lexer_mode 53 3 1, lexer_mode 53 3 1, lexer_mode 53 2 1, lexer_mode 53 2 1, lexer_mode 53 3 1,
    lexer_mode 53 3 1, lexer_mode 53 3 1, lexer_mode 53 3 1, lexer_mode 53 3 1, lexer_mode 53 3 1,
    lexer_mode 53 2 1, lexer_mode 53 2 1, lexer_mode 53 3 1, lexer_mode 53 3 1, lexer_mode 53 3 1,
    lexer_mode 53 3 1, lexer_mode 53 3 1, lexer_mode 53 2 1, lexer_mode 53 2 1, lexer_mode 53 3 1,
    lexer_mode 53 3 1, lexer_mode 53 2 1, lexer_mode 53 2 1, lexer_mode 53 3 1, lexer_mode 53 3 1,
    lexer_mode 53 3 1, lexer_mode 53 3 1, lexer_mode 53 3 1, lexer_mode 53 2 1, lexer_mode 53 3 1,
    lexer_mode 53 3 1, lexer_mode 53 3 1, lexer_mode 53 2 1, lexer_mode 53 2 1, lexer_mode 53 2 1,
    lexer_mode 53 2 1, lexer_mode 53 3 1, lexer_mode 53 3 1, lexer_mode 53 3 1, lexer_mode 53 3 1,
    lexer_mode 53 3 1, lexer_mode 53 3 1, lexer_mode 53 3 1, lexer_mode 53 3 1, lexer_mode 53 3 1,
    lexer_mode 53 3 1, lexer_mode 53 3 1, lexer_mode 53 3 1, lexer_mode 53 3 1, lexer_mode 53 2 1,
    lexer_mode 53 3 1, lexer_mode 53 3 1, lexer_mode 53 2 1, lexer_mode 53 3 1, lexer_mode 53 2 1,
    lexer_mode 53 3 1, lexer_mode 53 2 1, lexer_mode 53 2 1, lexer_mode 53 2 1, lexer_mode 53 2 1,
    lexer_mode 53 3 1, lexer_mode 53 3 1, lexer_mode 53 3 1, lexer_mode 53 3 1, lexer_mode 53 2 1,
    lexer_mode 53 3 1, lexer_mode 53 2 1, lexer_mode 53 3 1, lexer_mode 53 2 1, lexer_mode 53 3 1,
    lexer_mode 53 3 1, lexer_mode 53 2 1, lexer_mode 53 3 1, lexer_mode 53 2 1, lexer_mode 53 3 1,
    lexer_mode 53 2 1, lexer_mode 53 2 1, lexer_mode 53 2 1, lexer_mode 53 3 1, lexer_mode 53 3 1,
    lexer_mode 53 3 1, lexer_mode 53 3 1, lexer_mode 53 2 1, lexer_mode 53 2 1, lexer_mode 53 2 1,
    lexer_mode 53 2 1, lexer_mode 53 3 1, lexer_mode 53 3 1, lexer_mode 53 3 1, lexer_mode 53 3 1,
    lexer_mode 53 3 1, lexer_mode 53 3 1, lexer_mode 53 2 1, lexer_mode 53 2 1, lexer_mode 53 2 1,
    lexer_mode 53 2 1, lexer_mode 53 2 1, lexer_mode 53 2 1, lexer_mode 53 2 1, lexer_mode 53 2 1,
    lexer_mode 53 2 1, lexer_mode 53 2 1, lexer_mode 53 2 1, lexer_mode 53 2 1, lexer_mode 53 2 1]"

definition ts_lex_modes_32 :: "TSLexerMode list" where "ts_lex_modes_32 = [
    lexer_mode 53 2 1, lexer_mode 53 3 1, lexer_mode 53 2 1, lexer_mode 53 3 1, lexer_mode 53 2 1,
    lexer_mode 53 3 1, lexer_mode 53 2 1, lexer_mode 53 2 1, lexer_mode 53 2 1, lexer_mode 53 3 1,
    lexer_mode 53 2 1, lexer_mode 53 2 1, lexer_mode 53 2 1, lexer_mode 53 3 1, lexer_mode 53 2 1,
    lexer_mode 53 2 1, lexer_mode 53 3 1, lexer_mode 53 3 1, lexer_mode 53 3 1, lexer_mode 53 3 1,
    lexer_mode 53 2 1, lexer_mode 53 3 1, lexer_mode 53 2 1, lexer_mode 53 2 1, lexer_mode 53 3 1,
    lexer_mode 53 2 1, lexer_mode 53 3 1, lexer_mode 53 2 1, lexer_mode 53 3 1, lexer_mode 53 2 1,
    lexer_mode 53 2 1, lexer_mode 53 3 1, lexer_mode 53 2 1, lexer_mode 53 3 1, lexer_mode 53 3 1,
    lexer_mode 53 2 1, lexer_mode 53 2 1, lexer_mode 53 3 1, lexer_mode 53 2 1, lexer_mode 53 3 1,
    lexer_mode 53 2 1, lexer_mode 53 3 1, lexer_mode 53 3 1, lexer_mode 53 2 1, lexer_mode 53 2 1,
    lexer_mode 53 2 1, lexer_mode 53 3 1, lexer_mode 53 2 1, lexer_mode 53 3 1, lexer_mode 53 3 1,
    lexer_mode 53 2 1, lexer_mode 53 2 1, lexer_mode 53 3 1, lexer_mode 53 2 1, lexer_mode 53 3 1,
    lexer_mode 53 2 1, lexer_mode 53 3 1, lexer_mode 53 3 1, lexer_mode 53 3 1, lexer_mode 53 2 1,
    lexer_mode 53 2 1, lexer_mode 53 3 1, lexer_mode 53 2 1, lexer_mode 53 3 1, lexer_mode 53 3 1,
    lexer_mode 53 2 1, lexer_mode 53 2 1, lexer_mode 53 2 1, lexer_mode 53 2 1, lexer_mode 53 3 1,
    lexer_mode 53 2 1, lexer_mode 53 2 1, lexer_mode 53 2 1, lexer_mode 53 2 1, lexer_mode 53 2 1,
    lexer_mode 53 2 1, lexer_mode 53 2 1, lexer_mode 53 2 1, lexer_mode 53 2 1, lexer_mode 53 3 1,
    lexer_mode 53 2 1, lexer_mode 53 3 1, lexer_mode 53 2 1, lexer_mode 53 2 1, lexer_mode 53 3 1,
    lexer_mode 53 2 1, lexer_mode 53 3 1, lexer_mode 53 2 1, lexer_mode 53 2 1, lexer_mode 53 2 1,
    lexer_mode 53 3 1, lexer_mode 53 2 1, lexer_mode 53 2 1, lexer_mode 53 2 1, lexer_mode 53 2 1,
    lexer_mode 53 2 1, lexer_mode 53 2 1, lexer_mode 53 3 1, lexer_mode 53 2 1, lexer_mode 53 2 1,
    lexer_mode 53 3 1, lexer_mode 53 2 1, lexer_mode 53 2 1, lexer_mode 53 3 1, lexer_mode 53 2 1,
    lexer_mode 53 2 1, lexer_mode 53 3 1, lexer_mode 53 3 1, lexer_mode 53 2 1, lexer_mode 53 2 1,
    lexer_mode 53 3 1, lexer_mode 53 2 1, lexer_mode 53 2 1, lexer_mode 53 2 1, lexer_mode 53 2 1,
    lexer_mode 53 2 1, lexer_mode 53 2 1, lexer_mode 53 2 1, lexer_mode 53 3 1, lexer_mode 53 3 1,
    lexer_mode 53 2 1, lexer_mode 53 3 1, lexer_mode 53 2 1, lexer_mode 53 2 1, lexer_mode 53 2 1,
    lexer_mode 53 3 1, lexer_mode 53 2 1, lexer_mode 53 3 1, lexer_mode 53 2 1, lexer_mode 53 3 1,
    lexer_mode 53 2 1, lexer_mode 53 2 1, lexer_mode 53 2 1, lexer_mode 53 2 1, lexer_mode 53 2 1,
    lexer_mode 53 2 1, lexer_mode 53 3 1, lexer_mode 53 3 1, lexer_mode 53 2 1, lexer_mode 53 3 1,
    lexer_mode 53 2 1, lexer_mode 53 3 1, lexer_mode 53 2 1, lexer_mode 53 3 1, lexer_mode 53 2 1,
    lexer_mode 53 2 1, lexer_mode 53 2 1, lexer_mode 53 2 1, lexer_mode 53 2 1, lexer_mode 53 3 1]"

definition ts_lex_modes_33 :: "TSLexerMode list" where "ts_lex_modes_33 = [
    lexer_mode 53 2 1, lexer_mode 53 3 1, lexer_mode 53 2 1, lexer_mode 53 3 1, lexer_mode 53 3 1,
    lexer_mode 53 2 1, lexer_mode 53 3 1, lexer_mode 53 2 1, lexer_mode 53 3 1, lexer_mode 53 2 1,
    lexer_mode 53 3 1, lexer_mode 53 3 1, lexer_mode 53 2 1, lexer_mode 53 2 1, lexer_mode 53 2 1,
    lexer_mode 53 2 1, lexer_mode 53 2 1, lexer_mode 53 3 1, lexer_mode 53 2 1, lexer_mode 53 3 1,
    lexer_mode 53 2 1, lexer_mode 53 3 1, lexer_mode 53 2 1, lexer_mode 53 2 1, lexer_mode 53 2 1,
    lexer_mode 53 2 1, lexer_mode 53 3 1, lexer_mode 53 3 1, lexer_mode 53 2 1, lexer_mode 53 2 1,
    lexer_mode 53 2 1, lexer_mode 53 3 1, lexer_mode 53 3 1, lexer_mode 53 2 1, lexer_mode 53 2 1,
    lexer_mode 53 2 1, lexer_mode 53 2 1, lexer_mode 53 3 1, lexer_mode 53 3 1, lexer_mode 53 2 1,
    lexer_mode 53 2 1, lexer_mode 53 2 1, lexer_mode 53 3 1, lexer_mode 53 2 1, lexer_mode 53 3 1,
    lexer_mode 53 3 1, lexer_mode 53 2 1, lexer_mode 53 3 1, lexer_mode 53 2 1, lexer_mode 53 2 1,
    lexer_mode 53 2 1, lexer_mode 53 2 1, lexer_mode 53 2 1, lexer_mode 53 2 1, lexer_mode 53 2 1,
    lexer_mode 53 2 1, lexer_mode 53 2 1, lexer_mode 53 2 1, lexer_mode 53 2 1, lexer_mode 53 2 1,
    lexer_mode 53 3 1, lexer_mode 53 2 1, lexer_mode 53 2 1, lexer_mode 53 2 1, lexer_mode 53 2 1,
    lexer_mode 53 2 1, lexer_mode 53 2 1, lexer_mode 53 3 1, lexer_mode 53 2 1, lexer_mode 53 2 1,
    lexer_mode 53 2 1, lexer_mode 53 2 1, lexer_mode 53 2 1, lexer_mode 53 2 1, lexer_mode 53 2 1,
    lexer_mode 7 11 0, lexer_mode 53 2 1, lexer_mode 53 3 1, lexer_mode 53 3 1, lexer_mode 53 3 1,
    lexer_mode 53 3 1, lexer_mode 53 3 1, lexer_mode 53 2 1, lexer_mode 53 3 1, lexer_mode 53 2 1,
    lexer_mode 53 2 1, lexer_mode 53 2 1, lexer_mode 53 2 1, lexer_mode 53 2 1, lexer_mode 53 2 1,
    lexer_mode 53 2 1, lexer_mode 53 2 1, lexer_mode 53 2 1, lexer_mode 53 3 1, lexer_mode 53 2 1,
    lexer_mode 53 2 1, lexer_mode 53 2 1, lexer_mode 53 2 1, lexer_mode 53 2 1, lexer_mode 53 2 1,
    lexer_mode 53 2 1, lexer_mode 53 2 1, lexer_mode 53 2 1, lexer_mode 53 2 1, lexer_mode 53 2 1,
    lexer_mode 53 2 1, lexer_mode 53 2 1, lexer_mode 53 2 1, lexer_mode 53 2 1, lexer_mode 53 2 1,
    lexer_mode 53 2 1, lexer_mode 53 2 1, lexer_mode 53 2 1, lexer_mode 53 2 1, lexer_mode 53 2 1,
    lexer_mode 53 2 1, lexer_mode 53 2 1, lexer_mode 53 2 1, lexer_mode 53 2 1, lexer_mode 53 2 1,
    lexer_mode 53 2 1, lexer_mode 53 2 1, lexer_mode 53 2 1, lexer_mode 53 2 1, lexer_mode 53 2 1,
    lexer_mode 53 2 1, lexer_mode 53 2 1, lexer_mode 53 2 1, lexer_mode 53 2 1, lexer_mode 53 2 1,
    lexer_mode 53 2 1, lexer_mode 53 2 1, lexer_mode 53 2 1, lexer_mode 53 2 1, lexer_mode 53 2 1,
    lexer_mode 53 2 1, lexer_mode 53 2 1, lexer_mode 53 2 1, lexer_mode 53 2 1, lexer_mode 53 2 1,
    lexer_mode 53 2 1, lexer_mode 53 2 1, lexer_mode 53 2 1, lexer_mode 53 2 1, lexer_mode 53 2 1,
    lexer_mode 53 2 1, lexer_mode 53 2 1, lexer_mode 53 2 1, lexer_mode 53 2 1, lexer_mode 53 2 1]"

definition ts_lex_modes_34 :: "TSLexerMode list" where "ts_lex_modes_34 = [
    lexer_mode 53 2 1, lexer_mode 53 2 1, lexer_mode 53 2 1, lexer_mode 53 2 1, lexer_mode 53 2 1,
    lexer_mode 53 2 1, lexer_mode 53 2 1, lexer_mode 53 2 1, lexer_mode 53 2 1, lexer_mode 53 2 1,
    lexer_mode 53 2 1, lexer_mode 53 2 1, lexer_mode 53 2 1, lexer_mode 53 2 1, lexer_mode 53 2 1,
    lexer_mode 53 2 1, lexer_mode 53 2 1, lexer_mode 53 2 1, lexer_mode 53 2 1, lexer_mode 53 2 1,
    lexer_mode 53 2 1, lexer_mode 53 2 1, lexer_mode 53 2 1, lexer_mode 53 2 1, lexer_mode 53 2 1,
    lexer_mode 53 2 1, lexer_mode 53 2 1, lexer_mode 53 2 1, lexer_mode 53 2 1, lexer_mode 53 2 1,
    lexer_mode 53 2 1, lexer_mode 53 2 1, lexer_mode 53 2 1, lexer_mode 53 2 1, lexer_mode 53 2 1,
    lexer_mode 53 2 1, lexer_mode 53 2 1, lexer_mode 53 2 1, lexer_mode 53 2 1, lexer_mode 53 2 1,
    lexer_mode 53 2 1, lexer_mode 53 2 1, lexer_mode 53 2 1, lexer_mode 53 2 1, lexer_mode 53 2 1,
    lexer_mode 53 2 1, lexer_mode 53 2 1, lexer_mode 53 2 1, lexer_mode 53 2 1, lexer_mode 53 2 1,
    lexer_mode 53 2 1, lexer_mode 53 2 1, lexer_mode 53 2 1, lexer_mode 53 2 1, lexer_mode 53 2 1,
    lexer_mode 53 2 1, lexer_mode 53 2 1, lexer_mode 53 2 1, lexer_mode 53 2 1, lexer_mode 53 2 1,
    lexer_mode 53 2 1, lexer_mode 53 2 1, lexer_mode 53 2 1, lexer_mode 53 2 1, lexer_mode 53 2 1,
    lexer_mode 53 2 1, lexer_mode 53 2 1, lexer_mode 53 2 1, lexer_mode 53 2 1, lexer_mode 53 2 1,
    lexer_mode 53 2 1, lexer_mode 53 2 1, lexer_mode 53 2 1, lexer_mode 53 2 1, lexer_mode 53 3 1,
    lexer_mode 53 2 1, lexer_mode 53 2 1, lexer_mode 53 2 1, lexer_mode 53 3 1, lexer_mode 53 2 1,
    lexer_mode 53 2 1, lexer_mode 53 3 1, lexer_mode 53 2 1, lexer_mode 53 3 1, lexer_mode 53 2 1,
    lexer_mode 53 3 1, lexer_mode 53 2 1, lexer_mode 53 3 1, lexer_mode 53 2 1, lexer_mode 53 3 1,
    lexer_mode 53 2 1, lexer_mode 53 2 1, lexer_mode 53 2 1, lexer_mode 53 3 1, lexer_mode 53 2 1,
    lexer_mode 53 2 1, lexer_mode 53 3 1, lexer_mode 53 2 1, lexer_mode 53 3 1, lexer_mode 53 3 1,
    lexer_mode 53 2 1, lexer_mode 53 3 1, lexer_mode 53 2 1, lexer_mode 53 2 1, lexer_mode 53 2 1,
    lexer_mode 53 3 1, lexer_mode 53 3 1, lexer_mode 53 2 1, lexer_mode 53 2 1, lexer_mode 53 3 1,
    lexer_mode 53 2 1, lexer_mode 53 3 1, lexer_mode 53 2 1, lexer_mode 53 3 1, lexer_mode 53 2 1,
    lexer_mode 53 3 1, lexer_mode 53 3 1, lexer_mode 53 2 1, lexer_mode 53 3 1, lexer_mode 53 2 1,
    lexer_mode 53 3 1, lexer_mode 53 2 1, lexer_mode 53 2 1, lexer_mode 53 3 1, lexer_mode 53 2 1,
    lexer_mode 53 2 1, lexer_mode 53 2 1, lexer_mode 53 2 1, lexer_mode 53 2 1, lexer_mode 53 2 1,
    lexer_mode 53 3 1, lexer_mode 53 2 1, lexer_mode 53 2 1, lexer_mode 53 3 1, lexer_mode 53 2 1,
    lexer_mode 53 2 1, lexer_mode 53 3 1, lexer_mode 53 2 1, lexer_mode 53 2 1, lexer_mode 53 2 1,
    lexer_mode 53 3 1, lexer_mode 53 2 1, lexer_mode 53 2 1, lexer_mode 53 2 1, lexer_mode 53 2 1,
    lexer_mode 53 2 1, lexer_mode 53 2 1, lexer_mode 53 2 1, lexer_mode 53 3 1, lexer_mode 53 2 1]"

definition ts_lex_modes_35 :: "TSLexerMode list" where "ts_lex_modes_35 = [
    lexer_mode 53 3 1, lexer_mode 53 2 1, lexer_mode 53 2 1, lexer_mode 53 2 1, lexer_mode 53 2 1,
    lexer_mode 53 3 1, lexer_mode 53 2 1, lexer_mode 53 2 1, lexer_mode 53 2 1, lexer_mode 53 2 1,
    lexer_mode 53 2 1, lexer_mode 53 2 1, lexer_mode 53 3 1, lexer_mode 53 2 1, lexer_mode 53 2 1,
    lexer_mode 53 2 1, lexer_mode 53 2 1, lexer_mode 53 2 1, lexer_mode 53 2 1, lexer_mode 53 2 1,
    lexer_mode 53 2 1, lexer_mode 53 3 1, lexer_mode 53 2 1, lexer_mode 53 2 1, lexer_mode 53 2 1,
    lexer_mode 53 2 1, lexer_mode 53 2 1, lexer_mode 53 2 1, lexer_mode 53 2 1, lexer_mode 53 2 1,
    lexer_mode 53 2 1, lexer_mode 53 2 1, lexer_mode 53 2 1, lexer_mode 53 3 1, lexer_mode 53 2 1,
    lexer_mode 53 2 1, lexer_mode 53 2 1, lexer_mode 53 3 1, lexer_mode 53 2 1, lexer_mode 53 2 1,
    lexer_mode 53 2 1, lexer_mode 53 2 1, lexer_mode 53 2 1, lexer_mode 53 2 1, lexer_mode 53 2 1,
    lexer_mode 53 2 1, lexer_mode 12 7 1, lexer_mode 53 2 1, lexer_mode 53 2 1, lexer_mode 53 3 1,
    lexer_mode 53 2 1, lexer_mode 53 2 1, lexer_mode 53 2 1, lexer_mode 53 3 1, lexer_mode 53 2 1,
    lexer_mode 53 2 1, lexer_mode 53 2 1, lexer_mode 53 2 1, lexer_mode 53 2 1, lexer_mode 53 2 1,
    lexer_mode 53 2 1, lexer_mode 53 2 1, lexer_mode 53 2 1, lexer_mode 53 2 1, lexer_mode 53 2 1,
    lexer_mode 53 3 1, lexer_mode 53 2 1, lexer_mode 53 2 1, lexer_mode 53 3 1, lexer_mode 53 2 1,
    lexer_mode 53 2 1, lexer_mode 53 2 1, lexer_mode 53 2 1, lexer_mode 53 2 1, lexer_mode 53 2 1,
    lexer_mode 53 2 1, lexer_mode 53 2 1, lexer_mode 53 2 1, lexer_mode 53 2 1, lexer_mode 53 3 1,
    lexer_mode 53 2 1, lexer_mode 53 2 1, lexer_mode 53 3 1, lexer_mode 53 2 1, lexer_mode 53 3 1,
    lexer_mode 53 2 1, lexer_mode 53 2 1, lexer_mode 53 3 1, lexer_mode 53 2 1, lexer_mode 53 3 1,
    lexer_mode 53 3 1, lexer_mode 53 2 1, lexer_mode 53 3 1, lexer_mode 53 2 1, lexer_mode 53 2 1,
    lexer_mode 53 2 1, lexer_mode 53 2 1, lexer_mode 53 2 1, lexer_mode 53 2 1, lexer_mode 53 2 1,
    lexer_mode 53 2 1, lexer_mode 53 2 1, lexer_mode 53 2 1, lexer_mode 53 2 1, lexer_mode 53 2 1,
    lexer_mode 53 3 1, lexer_mode 53 2 1, lexer_mode 53 2 1, lexer_mode 53 2 1, lexer_mode 53 2 1,
    lexer_mode 53 2 1, lexer_mode 53 2 1, lexer_mode 53 2 1, lexer_mode 53 3 1, lexer_mode 53 2 1,
    lexer_mode 53 2 1, lexer_mode 53 2 1, lexer_mode 53 2 1, lexer_mode 53 2 1, lexer_mode 53 3 1,
    lexer_mode 53 2 1, lexer_mode 53 3 1, lexer_mode 53 2 1, lexer_mode 53 3 1, lexer_mode 53 2 1,
    lexer_mode 53 2 1, lexer_mode 53 3 1, lexer_mode 53 2 1, lexer_mode 53 2 1, lexer_mode 53 3 1,
    lexer_mode 53 2 1, lexer_mode 53 2 1, lexer_mode 53 2 1, lexer_mode 53 2 1, lexer_mode 53 2 1,
    lexer_mode 53 2 1, lexer_mode 53 2 1, lexer_mode 53 3 1, lexer_mode 53 3 1, lexer_mode 53 2 1,
    lexer_mode 53 3 1, lexer_mode 53 2 1, lexer_mode 7 11 0, lexer_mode 53 2 1, lexer_mode 53 2 1,
    lexer_mode 53 3 1, lexer_mode 53 2 1, lexer_mode 53 3 1, lexer_mode 53 2 1, lexer_mode 53 3 1]"

definition ts_lex_modes_36 :: "TSLexerMode list" where "ts_lex_modes_36 = [
    lexer_mode 53 2 1, lexer_mode 7 11 0, lexer_mode 53 2 1, lexer_mode 53 3 1, lexer_mode 53 2 1,
    lexer_mode 53 3 1, lexer_mode 53 2 1, lexer_mode 53 2 1, lexer_mode 53 2 1, lexer_mode 53 2 1,
    lexer_mode 53 2 1, lexer_mode 53 3 1, lexer_mode 53 2 1, lexer_mode 53 3 1, lexer_mode 53 2 1,
    lexer_mode 53 2 1, lexer_mode 53 2 1, lexer_mode 53 2 1, lexer_mode 53 2 1, lexer_mode 53 2 1,
    lexer_mode 53 2 1, lexer_mode 53 3 1, lexer_mode 53 2 1, lexer_mode 53 2 1, lexer_mode 53 2 1,
    lexer_mode 53 2 1, lexer_mode 53 2 1, lexer_mode 53 3 1, lexer_mode 53 2 1, lexer_mode 53 2 1,
    lexer_mode 53 2 1, lexer_mode 53 3 1, lexer_mode 53 2 1, lexer_mode 53 2 1, lexer_mode 53 2 1,
    lexer_mode 53 3 1, lexer_mode 53 2 1, lexer_mode 53 2 1, lexer_mode 53 2 1, lexer_mode 53 2 1,
    lexer_mode 53 2 1, lexer_mode 53 3 1, lexer_mode 53 2 1, lexer_mode 53 2 1, lexer_mode 53 2 1,
    lexer_mode 53 3 1, lexer_mode 53 2 1, lexer_mode 53 2 1, lexer_mode 53 2 1, lexer_mode 53 2 1,
    lexer_mode 53 2 1, lexer_mode 53 2 1, lexer_mode 53 2 1, lexer_mode 53 3 1, lexer_mode 53 2 1,
    lexer_mode 53 2 1, lexer_mode 53 2 1, lexer_mode 53 2 1, lexer_mode 53 2 1, lexer_mode 53 2 1,
    lexer_mode 53 3 1, lexer_mode 53 2 1, lexer_mode 53 2 1, lexer_mode 53 2 1, lexer_mode 53 2 1,
    lexer_mode 53 2 1, lexer_mode 53 2 1, lexer_mode 53 2 1, lexer_mode 53 2 1, lexer_mode 53 3 1,
    lexer_mode 53 2 1, lexer_mode 53 3 1, lexer_mode 53 2 1, lexer_mode 53 2 1, lexer_mode 53 3 1,
    lexer_mode 53 2 1, lexer_mode 53 2 1, lexer_mode 53 2 1, lexer_mode 53 2 1, lexer_mode 53 2 1,
    lexer_mode 53 2 1, lexer_mode 53 2 1, lexer_mode 53 2 1, lexer_mode 53 3 1, lexer_mode 53 2 1,
    lexer_mode 53 2 1, lexer_mode 53 2 1, lexer_mode 53 2 1, lexer_mode 53 2 1, lexer_mode 53 2 1,
    lexer_mode 53 2 1, lexer_mode 53 2 1, lexer_mode 53 2 1, lexer_mode 53 2 1, lexer_mode 53 2 1,
    lexer_mode 53 3 1, lexer_mode 53 3 1, lexer_mode 53 2 1, lexer_mode 53 2 1, lexer_mode 53 2 1,
    lexer_mode 53 2 1, lexer_mode 53 2 1, lexer_mode 53 2 1, lexer_mode 53 2 1, lexer_mode 53 3 1,
    lexer_mode 53 2 1, lexer_mode 53 2 1, lexer_mode 53 2 1, lexer_mode 53 2 1, lexer_mode 53 2 1,
    lexer_mode 53 2 1, lexer_mode 53 2 1, lexer_mode 53 2 1, lexer_mode 53 2 1, lexer_mode 53 2 1,
    lexer_mode 53 2 1, lexer_mode 53 2 1, lexer_mode 53 2 1, lexer_mode 53 2 1, lexer_mode 53 2 1,
    lexer_mode 53 2 1, lexer_mode 53 2 1, lexer_mode 53 2 1, lexer_mode 53 2 1, lexer_mode 53 2 1,
    lexer_mode 53 3 1, lexer_mode 53 2 1, lexer_mode 53 2 1, lexer_mode 53 2 1, lexer_mode 53 2 1,
    lexer_mode 53 2 1, lexer_mode 53 2 1, lexer_mode 53 2 1, lexer_mode 53 3 1, lexer_mode 53 2 1,
    lexer_mode 53 2 1, lexer_mode 53 2 1, lexer_mode 53 2 1, lexer_mode 53 2 1, lexer_mode 53 2 1,
    lexer_mode 53 2 1, lexer_mode 53 2 1, lexer_mode 53 2 1, lexer_mode 53 2 1, lexer_mode 53 3 1,
    lexer_mode 53 2 1, lexer_mode 53 2 1, lexer_mode 53 2 1, lexer_mode 53 3 1, lexer_mode 53 2 1]"

definition ts_lex_modes_37 :: "TSLexerMode list" where "ts_lex_modes_37 = [
    lexer_mode 53 3 1, lexer_mode 53 2 1, lexer_mode 53 2 1, lexer_mode 53 2 1, lexer_mode 53 2 1,
    lexer_mode 53 2 1, lexer_mode 53 2 1, lexer_mode 53 2 1, lexer_mode 53 2 1, lexer_mode 53 3 1,
    lexer_mode 53 2 1, lexer_mode 53 3 1, lexer_mode 53 2 1, lexer_mode 53 2 1, lexer_mode 53 2 1,
    lexer_mode 53 2 1, lexer_mode 53 2 1, lexer_mode 53 2 1, lexer_mode 53 3 1, lexer_mode 53 2 1,
    lexer_mode 53 3 1, lexer_mode 53 2 1, lexer_mode 53 3 1, lexer_mode 53 3 1, lexer_mode 53 3 1,
    lexer_mode 53 2 1, lexer_mode 53 3 1, lexer_mode 53 3 1, lexer_mode 53 3 1, lexer_mode 53 3 1,
    lexer_mode 53 3 1, lexer_mode 53 3 1, lexer_mode 53 2 1, lexer_mode 53 3 1, lexer_mode 53 3 1,
    lexer_mode 53 3 1, lexer_mode 53 3 1, lexer_mode 53 3 1, lexer_mode 53 3 1, lexer_mode 53 3 1,
    lexer_mode 53 3 1, lexer_mode 53 3 1, lexer_mode 53 2 1, lexer_mode 53 2 1, lexer_mode 53 2 1,
    lexer_mode 53 2 1, lexer_mode 53 2 1, lexer_mode 53 2 1, lexer_mode 53 2 1, lexer_mode 53 2 1,
    lexer_mode 53 2 1, lexer_mode 53 2 1, lexer_mode 53 2 1, lexer_mode 53 2 1, lexer_mode 53 2 1,
    lexer_mode 53 3 1, lexer_mode 53 2 1, lexer_mode 53 3 1, lexer_mode 53 2 1, lexer_mode 53 3 1,
    lexer_mode 53 3 1, lexer_mode 53 3 1, lexer_mode 53 3 1, lexer_mode 53 3 1, lexer_mode 53 3 1,
    lexer_mode 53 3 1, lexer_mode 53 3 1, lexer_mode 53 3 1, lexer_mode 53 3 1, lexer_mode 53 3 1,
    lexer_mode 53 3 1, lexer_mode 53 3 1, lexer_mode 53 3 1, lexer_mode 53 2 1, lexer_mode 53 3 1,
    lexer_mode 53 3 1, lexer_mode 53 2 1, lexer_mode 53 3 1, lexer_mode 53 3 1, lexer_mode 53 3 1,
    lexer_mode 53 3 1, lexer_mode 53 3 1, lexer_mode 53 3 1, lexer_mode 53 3 1, lexer_mode 53 3 1,
    lexer_mode 53 3 1, lexer_mode 53 2 1, lexer_mode 53 3 1, lexer_mode 53 2 1, lexer_mode 53 3 1,
    lexer_mode 53 2 1, lexer_mode 53 3 1, lexer_mode 53 3 1, lexer_mode 53 3 1, lexer_mode 53 2 1,
    lexer_mode 53 2 1, lexer_mode 53 2 1, lexer_mode 53 3 1, lexer_mode 53 2 1, lexer_mode 53 3 1,
    lexer_mode 53 2 1, lexer_mode 53 3 1, lexer_mode 53 3 1, lexer_mode 53 2 1, lexer_mode 53 3 1,
    lexer_mode 53 3 1, lexer_mode 53 3 1, lexer_mode 53 2 1, lexer_mode 53 3 1, lexer_mode 53 2 1,
    lexer_mode 53 2 1, lexer_mode 53 3 1, lexer_mode 53 3 1, lexer_mode 53 3 1, lexer_mode 53 3 1,
    lexer_mode 53 3 1, lexer_mode 53 3 1, lexer_mode 53 3 1, lexer_mode 53 3 1, lexer_mode 53 3 1,
    lexer_mode 53 3 1, lexer_mode 53 3 1, lexer_mode 53 3 1, lexer_mode 53 2 1, lexer_mode 53 3 1,
    lexer_mode 53 2 1, lexer_mode 53 2 1, lexer_mode 53 3 1, lexer_mode 53 3 1, lexer_mode 53 3 1,
    lexer_mode 53 2 1, lexer_mode 53 3 1, lexer_mode 53 3 1, lexer_mode 53 3 1, lexer_mode 53 2 1,
    lexer_mode 53 3 1, lexer_mode 53 3 1, lexer_mode 53 2 1, lexer_mode 53 3 1, lexer_mode 53 3 1,
    lexer_mode 53 3 1, lexer_mode 53 3 1, lexer_mode 53 3 1, lexer_mode 53 3 1, lexer_mode 53 2 1,
    lexer_mode 53 2 1, lexer_mode 53 3 1, lexer_mode 53 2 1, lexer_mode 53 3 1, lexer_mode 53 3 1]"

definition ts_lex_modes_38 :: "TSLexerMode list" where "ts_lex_modes_38 = [
    lexer_mode 53 3 1, lexer_mode 53 3 1, lexer_mode 53 3 1, lexer_mode 53 3 1, lexer_mode 53 3 1,
    lexer_mode 53 2 1, lexer_mode 53 2 1, lexer_mode 53 3 1, lexer_mode 53 2 1, lexer_mode 53 3 1,
    lexer_mode 53 2 1, lexer_mode 53 2 1, lexer_mode 53 3 1, lexer_mode 53 2 1, lexer_mode 53 3 1,
    lexer_mode 53 2 1, lexer_mode 53 2 1, lexer_mode 53 3 1, lexer_mode 53 2 1, lexer_mode 53 2 1,
    lexer_mode 53 2 1, lexer_mode 53 2 1, lexer_mode 53 3 1, lexer_mode 53 2 1, lexer_mode 53 3 1,
    lexer_mode 53 2 1, lexer_mode 53 3 1, lexer_mode 53 2 1, lexer_mode 53 2 1, lexer_mode 53 3 1,
    lexer_mode 53 3 1, lexer_mode 53 3 1, lexer_mode 53 3 1, lexer_mode 53 3 1, lexer_mode 53 3 1,
    lexer_mode 53 3 1, lexer_mode 53 3 1, lexer_mode 53 3 1, lexer_mode 53 2 1, lexer_mode 53 3 1,
    lexer_mode 53 3 1, lexer_mode 53 3 1, lexer_mode 53 3 1, lexer_mode 53 3 1, lexer_mode 53 2 1,
    lexer_mode 53 2 1, lexer_mode 53 2 1, lexer_mode 53 3 1, lexer_mode 53 3 1, lexer_mode 53 2 1,
    lexer_mode 53 3 1, lexer_mode 53 3 1, lexer_mode 53 3 1, lexer_mode 53 3 1, lexer_mode 53 3 1,
    lexer_mode 53 3 1, lexer_mode 53 3 1, lexer_mode 53 3 1, lexer_mode 53 3 1, lexer_mode 53 3 1,
    lexer_mode 53 3 1, lexer_mode 53 3 1, lexer_mode 53 3 1, lexer_mode 53 3 1, lexer_mode 53 2 1,
    lexer_mode 53 2 1, lexer_mode 53 3 1, lexer_mode 53 3 1, lexer_mode 53 2 1, lexer_mode 53 2 1,
    lexer_mode 53 3 1, lexer_mode 53 3 1, lexer_mode 53 3 1, lexer_mode 53 3 1, lexer_mode 53 3 1,
    lexer_mode 53 3 1, lexer_mode 53 2 1, lexer_mode 53 2 1, lexer_mode 53 2 1, lexer_mode 53 2 1,
    lexer_mode 53 2 1, lexer_mode 53 3 1, lexer_mode 53 3 1, lexer_mode 53 3 1, lexer_mode 53 3 1,
    lexer_mode 53 3 1, lexer_mode 53 3 1, lexer_mode 53 3 1, lexer_mode 53 3 1, lexer_mode 53 3 1,
    lexer_mode 53 2 1, lexer_mode 53 3 1, lexer_mode 53 3 1, lexer_mode 53 3 1, lexer_mode 53 3 1,
    lexer_mode 53 3 1, lexer_mode 53 3 1, lexer_mode 53 3 1, lexer_mode 53 3 1, lexer_mode 53 2 1,
    lexer_mode 53 2 1, lexer_mode 53 2 1, lexer_mode 53 2 1, lexer_mode 53 2 1, lexer_mode 53 2 1,
    lexer_mode 53 3 1, lexer_mode 53 3 1, lexer_mode 53 3 1, lexer_mode 53 3 1, lexer_mode 53 3 1,
    lexer_mode 53 3 1, lexer_mode 53 3 1, lexer_mode 53 3 1, lexer_mode 53 2 1, lexer_mode 53 3 1,
    lexer_mode 53 3 1, lexer_mode 53 3 1, lexer_mode 53 3 1, lexer_mode 53 3 1, lexer_mode 53 3 1,
    lexer_mode 53 3 1, lexer_mode 53 3 1, lexer_mode 53 3 1, lexer_mode 53 3 1, lexer_mode 53 3 1,
    lexer_mode 53 3 1, lexer_mode 53 3 1, lexer_mode 53 3 1, lexer_mode 53 3 1, lexer_mode 53 3 1,
    lexer_mode 53 3 1, lexer_mode 53 3 1, lexer_mode 53 3 1, lexer_mode 53 3 1, lexer_mode 53 3 1,
    lexer_mode 53 3 1, lexer_mode 53 3 1, lexer_mode 53 3 1, lexer_mode 53 3 1, lexer_mode 53 3 1,
    lexer_mode 53 2 1, lexer_mode 53 3 1, lexer_mode 53 3 1, lexer_mode 53 3 1, lexer_mode 53 3 1,
    lexer_mode 53 3 1, lexer_mode 53 3 1, lexer_mode 53 3 1, lexer_mode 53 3 1, lexer_mode 53 3 1]"

definition ts_lex_modes_39 :: "TSLexerMode list" where "ts_lex_modes_39 = [
    lexer_mode 53 3 1, lexer_mode 53 3 1, lexer_mode 53 3 1, lexer_mode 53 3 1, lexer_mode 53 3 1,
    lexer_mode 53 3 1, lexer_mode 53 3 1, lexer_mode 53 3 1, lexer_mode 53 3 1, lexer_mode 53 3 1,
    lexer_mode 53 3 1, lexer_mode 53 3 1, lexer_mode 53 3 1, lexer_mode 53 3 1, lexer_mode 53 2 1,
    lexer_mode 53 3 1, lexer_mode 53 3 1, lexer_mode 53 3 1, lexer_mode 53 3 1, lexer_mode 53 3 1,
    lexer_mode 53 3 1, lexer_mode 53 3 1, lexer_mode 53 3 1, lexer_mode 53 3 1, lexer_mode 53 3 1,
    lexer_mode 53 3 1, lexer_mode 53 3 1, lexer_mode 53 3 1, lexer_mode 53 3 1, lexer_mode 53 3 1,
    lexer_mode 53 3 1, lexer_mode 53 3 1, lexer_mode 53 3 1, lexer_mode 53 3 1, lexer_mode 53 3 1,
    lexer_mode 53 3 1, lexer_mode 53 3 1, lexer_mode 53 3 1, lexer_mode 53 3 1, lexer_mode 53 3 1,
    lexer_mode 53 3 1, lexer_mode 53 2 1, lexer_mode 53 2 1, lexer_mode 53 2 1, lexer_mode 53 3 1,
    lexer_mode 53 3 1, lexer_mode 53 3 1, lexer_mode 53 3 1, lexer_mode 53 3 1, lexer_mode 53 3 1,
    lexer_mode 53 3 1, lexer_mode 53 3 1, lexer_mode 53 3 1, lexer_mode 53 3 1, lexer_mode 53 3 1,
    lexer_mode 53 3 1, lexer_mode 53 3 1, lexer_mode 53 3 1, lexer_mode 53 3 1, lexer_mode 53 3 1,
    lexer_mode 53 3 1, lexer_mode 53 3 1, lexer_mode 53 3 1, lexer_mode 53 3 1, lexer_mode 53 3 1,
    lexer_mode 53 2 1, lexer_mode 53 3 1, lexer_mode 53 3 1, lexer_mode 53 2 1, lexer_mode 53 2 1,
    lexer_mode 53 2 1, lexer_mode 53 3 1, lexer_mode 53 3 1, lexer_mode 53 3 1, lexer_mode 53 3 1,
    lexer_mode 53 2 1, lexer_mode 53 2 1, lexer_mode 53 3 1, lexer_mode 53 2 1, lexer_mode 53 3 1,
    lexer_mode 53 2 1, lexer_mode 53 3 1, lexer_mode 53 3 1, lexer_mode 53 2 1, lexer_mode 53 3 1,
    lexer_mode 53 3 1, lexer_mode 53 2 1, lexer_mode 53 2 1, lexer_mode 53 3 1, lexer_mode 53 3 1,
    lexer_mode 53 3 1, lexer_mode 53 2 1, lexer_mode 53 2 1, lexer_mode 53 2 1, lexer_mode 53 3 1,
    lexer_mode 53 2 1, lexer_mode 53 2 1, lexer_mode 53 2 1, lexer_mode 53 3 1, lexer_mode 53 3 1,
    lexer_mode 53 2 1, lexer_mode 53 2 1, lexer_mode 53 3 1, lexer_mode 53 2 1, lexer_mode 53 2 1,
    lexer_mode 53 3 1, lexer_mode 53 3 1, lexer_mode 53 2 1, lexer_mode 53 2 1, lexer_mode 53 2 1,
    lexer_mode 53 3 1, lexer_mode 53 2 1, lexer_mode 53 2 1, lexer_mode 53 3 1, lexer_mode 53 3 1,
    lexer_mode 53 3 1, lexer_mode 53 3 1, lexer_mode 53 3 1, lexer_mode 53 3 1, lexer_mode 53 2 1,
    lexer_mode 53 3 1, lexer_mode 53 2 1, lexer_mode 53 2 1, lexer_mode 53 3 1, lexer_mode 53 3 1,
    lexer_mode 53 2 1, lexer_mode 53 3 1, lexer_mode 53 2 1, lexer_mode 53 3 1, lexer_mode 53 3 1,
    lexer_mode 53 2 1, lexer_mode 53 2 1, lexer_mode 53 3 1, lexer_mode 53 2 1, lexer_mode 53 2 1,
    lexer_mode 53 2 1, lexer_mode 53 3 1, lexer_mode 53 3 1, lexer_mode 53 3 1, lexer_mode 53 2 1,
    lexer_mode 53 3 1, lexer_mode 53 3 1, lexer_mode 53 2 1, lexer_mode 53 3 1, lexer_mode 53 3 1,
    lexer_mode 53 2 1, lexer_mode 53 3 1, lexer_mode 53 3 1, lexer_mode 53 3 1, lexer_mode 53 3 1]"

definition ts_lex_modes_40 :: "TSLexerMode list" where "ts_lex_modes_40 = [
    lexer_mode 53 2 1, lexer_mode 53 3 1, lexer_mode 53 3 1, lexer_mode 53 2 1, lexer_mode 53 2 1,
    lexer_mode 53 3 1, lexer_mode 53 2 1, lexer_mode 53 2 1, lexer_mode 53 2 1, lexer_mode 53 3 1,
    lexer_mode 53 3 1, lexer_mode 53 3 1, lexer_mode 53 2 1, lexer_mode 53 3 1, lexer_mode 53 3 1,
    lexer_mode 53 2 1, lexer_mode 53 3 1, lexer_mode 53 2 1, lexer_mode 53 2 1, lexer_mode 53 3 1,
    lexer_mode 53 3 1, lexer_mode 53 3 1, lexer_mode 53 3 1, lexer_mode 53 3 1, lexer_mode 53 3 1,
    lexer_mode 53 3 1, lexer_mode 53 3 1, lexer_mode 53 3 1, lexer_mode 53 2 1, lexer_mode 53 3 1,
    lexer_mode 53 3 1, lexer_mode 53 2 1, lexer_mode 53 3 1, lexer_mode 53 2 1, lexer_mode 53 2 1,
    lexer_mode 53 3 1, lexer_mode 53 3 1, lexer_mode 53 3 1, lexer_mode 53 3 1, lexer_mode 53 2 1,
    lexer_mode 53 3 1, lexer_mode 53 3 1, lexer_mode 53 3 1, lexer_mode 53 3 1, lexer_mode 53 3 1,
    lexer_mode 53 2 1, lexer_mode 53 3 1, lexer_mode 53 3 1, lexer_mode 53 2 1, lexer_mode 53 3 1,
    lexer_mode 53 3 1, lexer_mode 53 3 1, lexer_mode 53 3 1, lexer_mode 53 2 1, lexer_mode 53 2 1,
    lexer_mode 53 2 1, lexer_mode 53 2 1, lexer_mode 53 3 1, lexer_mode 53 3 1, lexer_mode 53 2 1,
    lexer_mode 53 3 1, lexer_mode 53 2 1, lexer_mode 53 2 1, lexer_mode 53 2 1, lexer_mode 53 3 1,
    lexer_mode 53 2 1, lexer_mode 53 2 1, lexer_mode 53 2 1, lexer_mode 53 3 1, lexer_mode 53 3 1,
    lexer_mode 53 2 1, lexer_mode 53 3 1, lexer_mode 53 2 1, lexer_mode 53 3 1, lexer_mode 53 3 1,
    lexer_mode 53 2 1, lexer_mode 53 2 1, lexer_mode 53 2 1, lexer_mode 53 3 1, lexer_mode 53 2 1,
    lexer_mode 53 2 1, lexer_mode 53 3 1, lexer_mode 53 3 1, lexer_mode 53 3 1, lexer_mode 53 2 1,
    lexer_mode 53 2 1, lexer_mode 53 3 1, lexer_mode 53 2 1, lexer_mode 53 2 1, lexer_mode 53 3 1,
    lexer_mode 53 3 1, lexer_mode 53 3 1, lexer_mode 53 2 1, lexer_mode 53 2 1, lexer_mode 53 2 1,
    lexer_mode 53 3 1, lexer_mode 53 2 1, lexer_mode 53 2 1, lexer_mode 53 2 1, lexer_mode 53 3 1,
    lexer_mode 53 3 1, lexer_mode 53 3 1, lexer_mode 53 2 1, lexer_mode 53 3 1, lexer_mode 53 3 1,
    lexer_mode 53 2 1, lexer_mode 53 3 1, lexer_mode 53 2 1, lexer_mode 53 2 1, lexer_mode 53 3 1,
    lexer_mode 53 3 1, lexer_mode 53 2 1, lexer_mode 53 2 1, lexer_mode 53 2 1, lexer_mode 53 3 1,
    lexer_mode 53 3 1, lexer_mode 53 2 1, lexer_mode 53 2 1, lexer_mode 53 2 1, lexer_mode 53 3 1,
    lexer_mode 53 2 1, lexer_mode 53 2 1, lexer_mode 53 3 1, lexer_mode 53 3 1, lexer_mode 53 3 1,
    lexer_mode 53 2 1, lexer_mode 53 3 1, lexer_mode 53 3 1, lexer_mode 53 2 1, lexer_mode 53 3 1,
    lexer_mode 53 2 1, lexer_mode 53 2 1, lexer_mode 53 3 1, lexer_mode 53 3 1, lexer_mode 53 3 1,
    lexer_mode 53 3 1, lexer_mode 53 2 1, lexer_mode 53 3 1, lexer_mode 53 3 1, lexer_mode 53 2 1,
    lexer_mode 53 2 1, lexer_mode 53 2 1, lexer_mode 53 3 1, lexer_mode 53 2 1, lexer_mode 53 2 1,
    lexer_mode 53 2 1, lexer_mode 53 3 1, lexer_mode 53 3 1, lexer_mode 53 3 1, lexer_mode 53 3 1]"

definition ts_lex_modes_41 :: "TSLexerMode list" where "ts_lex_modes_41 = [
    lexer_mode 53 3 1, lexer_mode 53 2 1, lexer_mode 53 3 1, lexer_mode 53 2 1, lexer_mode 53 3 1,
    lexer_mode 53 3 1, lexer_mode 53 3 1, lexer_mode 53 3 1, lexer_mode 53 2 1, lexer_mode 53 3 1,
    lexer_mode 53 3 1, lexer_mode 53 3 1, lexer_mode 53 3 1, lexer_mode 53 2 1, lexer_mode 53 3 1,
    lexer_mode 53 3 1, lexer_mode 53 2 1, lexer_mode 53 3 1, lexer_mode 53 2 1, lexer_mode 53 2 1,
    lexer_mode 53 3 1, lexer_mode 53 3 1, lexer_mode 53 3 1, lexer_mode 53 3 1, lexer_mode 53 2 1,
    lexer_mode 53 3 1, lexer_mode 53 3 1, lexer_mode 53 3 1, lexer_mode 53 3 1, lexer_mode 53 3 1,
    lexer_mode 53 2 1, lexer_mode 53 3 1, lexer_mode 53 3 1, lexer_mode 53 3 1, lexer_mode 53 3 1,
    lexer_mode 53 3 1, lexer_mode 53 2 1, lexer_mode 53 3 1, lexer_mode 53 2 1, lexer_mode 53 2 1,
    lexer_mode 53 2 1, lexer_mode 53 3 1, lexer_mode 53 3 1, lexer_mode 53 3 1, lexer_mode 53 2 1,
    lexer_mode 53 2 1, lexer_mode 53 3 1, lexer_mode 53 2 1, lexer_mode 53 2 1, lexer_mode 53 3 1,
    lexer_mode 53 2 1, lexer_mode 53 2 1, lexer_mode 53 2 1, lexer_mode 53 3 1, lexer_mode 53 3 1,
    lexer_mode 53 2 1, lexer_mode 53 2 1, lexer_mode 53 3 1, lexer_mode 53 3 1, lexer_mode 53 2 1,
    lexer_mode 53 2 1, lexer_mode 53 2 1, lexer_mode 53 3 1, lexer_mode 53 2 1, lexer_mode 53 2 1,
    lexer_mode 53 2 1, lexer_mode 53 3 1, lexer_mode 53 3 1, lexer_mode 53 2 1, lexer_mode 53 3 1,
    lexer_mode 53 2 1, lexer_mode 53 2 1, lexer_mode 53 2 1, lexer_mode 53 3 1, lexer_mode 53 3 1,
    lexer_mode 53 3 1, lexer_mode 53 2 1, lexer_mode 53 2 1, lexer_mode 53 3 1, lexer_mode 53 2 1,
    lexer_mode 53 3 1, lexer_mode 53 2 1, lexer_mode 53 3 1, lexer_mode 53 3 1, lexer_mode 53 3 1,
    lexer_mode 53 2 1, lexer_mode 53 3 1, lexer_mode 53 3 1, lexer_mode 53 2 1, lexer_mode 53 3 1,
    lexer_mode 53 3 1, lexer_mode 53 2 1, lexer_mode 53 3 1, lexer_mode 53 3 1, lexer_mode 53 2 1,
    lexer_mode 53 2 1, lexer_mode 53 3 1, lexer_mode 53 3 1, lexer_mode 53 2 1, lexer_mode 53 2 1,
    lexer_mode 53 3 1, lexer_mode 53 2 1, lexer_mode 53 2 1, lexer_mode 53 2 1, lexer_mode 53 3 1,
    lexer_mode 53 3 1, lexer_mode 53 3 1, lexer_mode 53 2 1, lexer_mode 53 3 1, lexer_mode 53 3 1,
    lexer_mode 53 2 1, lexer_mode 53 3 1, lexer_mode 53 2 1, lexer_mode 53 2 1, lexer_mode 53 3 1,
    lexer_mode 53 3 1, lexer_mode 53 3 1, lexer_mode 53 3 1, lexer_mode 53 2 1, lexer_mode 53 3 1,
    lexer_mode 53 3 1, lexer_mode 53 2 1, lexer_mode 53 2 1, lexer_mode 53 2 1, lexer_mode 53 3 1,
    lexer_mode 53 2 1, lexer_mode 53 2 1, lexer_mode 53 3 1, lexer_mode 53 3 1, lexer_mode 53 3 1,
    lexer_mode 53 3 1, lexer_mode 53 2 1, lexer_mode 53 3 1, lexer_mode 53 3 1, lexer_mode 53 2 1,
    lexer_mode 53 3 1, lexer_mode 53 2 1, lexer_mode 53 2 1, lexer_mode 53 3 1, lexer_mode 53 3 1,
    lexer_mode 53 3 1, lexer_mode 53 3 1, lexer_mode 53 3 1, lexer_mode 53 3 1, lexer_mode 53 3 1,
    lexer_mode 53 3 1, lexer_mode 53 3 1, lexer_mode 53 2 1, lexer_mode 53 3 1, lexer_mode 53 3 1]"

definition ts_lex_modes_42 :: "TSLexerMode list" where "ts_lex_modes_42 = [
    lexer_mode 53 2 1, lexer_mode 53 3 1, lexer_mode 53 2 1, lexer_mode 53 2 1, lexer_mode 53 3 1,
    lexer_mode 53 3 1, lexer_mode 53 3 1, lexer_mode 53 3 1, lexer_mode 53 2 1, lexer_mode 53 3 1,
    lexer_mode 53 3 1, lexer_mode 53 3 1, lexer_mode 53 3 1, lexer_mode 53 3 1, lexer_mode 53 2 1,
    lexer_mode 53 3 1, lexer_mode 53 3 1, lexer_mode 7 11 0, lexer_mode 53 3 1, lexer_mode 53 3 1,
    lexer_mode 53 2 1, lexer_mode 53 3 1, lexer_mode 53 2 1, lexer_mode 53 2 1, lexer_mode 53 2 1,
    lexer_mode 53 3 1, lexer_mode 53 3 1, lexer_mode 53 3 1, lexer_mode 53 2 1, lexer_mode 53 2 1,
    lexer_mode 53 3 1, lexer_mode 53 2 1, lexer_mode 53 2 1, lexer_mode 53 2 1, lexer_mode 53 3 1,
    lexer_mode 53 3 1, lexer_mode 53 2 1, lexer_mode 53 2 1, lexer_mode 53 3 1, lexer_mode 53 3 1,
    lexer_mode 53 2 1, lexer_mode 53 2 1, lexer_mode 7 11 0, lexer_mode 53 3 1, lexer_mode 53 3 1,
    lexer_mode 53 2 1, lexer_mode 53 2 1, lexer_mode 53 2 1, lexer_mode 53 3 1, lexer_mode 53 2 1,
    lexer_mode 53 2 1, lexer_mode 53 2 1, lexer_mode 53 3 1, lexer_mode 53 3 1, lexer_mode 53 3 1,
    lexer_mode 53 2 1, lexer_mode 53 3 1, lexer_mode 53 2 1, lexer_mode 53 2 1, lexer_mode 53 2 1,
    lexer_mode 53 3 1, lexer_mode 53 3 1, lexer_mode 53 3 1, lexer_mode 53 2 1, lexer_mode 53 2 1,
    lexer_mode 53 3 1, lexer_mode 53 2 1, lexer_mode 53 2 1, lexer_mode 53 3 1, lexer_mode 53 3 1,
    lexer_mode 53 3 1, lexer_mode 53 3 1, lexer_mode 53 2 1, lexer_mode 53 3 1, lexer_mode 53 3 1,
    lexer_mode 53 2 1, lexer_mode 53 3 1, lexer_mode 53 2 1, lexer_mode 53 3 1, lexer_mode 53 3 1,
    lexer_mode 53 2 1, lexer_mode 53 2 1, lexer_mode 53 3 1, lexer_mode 53 3 1, lexer_mode 53 2 1,
    lexer_mode 53 3 1, lexer_mode 53 2 1, lexer_mode 53 3 1, lexer_mode 53 2 1, lexer_mode 53 2 1,
    lexer_mode 53 3 1, lexer_mode 53 3 1, lexer_mode 53 3 1, lexer_mode 53 2 1, lexer_mode 53 3 1,
    lexer_mode 53 3 1, lexer_mode 53 3 1, lexer_mode 53 3 1, lexer_mode 53 2 1, lexer_mode 53 2 1,
    lexer_mode 53 3 1, lexer_mode 53 3 1, lexer_mode 53 3 1, lexer_mode 53 3 1, lexer_mode 53 3 1,
    lexer_mode 53 3 1, lexer_mode 53 3 1, lexer_mode 53 2 1, lexer_mode 53 3 1, lexer_mode 53 2 1,
    lexer_mode 53 3 1, lexer_mode 53 2 1, lexer_mode 53 3 1, lexer_mode 53 2 1, lexer_mode 53 3 1,
    lexer_mode 53 3 1, lexer_mode 53 3 1, lexer_mode 53 3 1, lexer_mode 53 3 1, lexer_mode 53 2 1,
    lexer_mode 53 3 1, lexer_mode 53 3 1, lexer_mode 53 2 1, lexer_mode 53 3 1, lexer_mode 53 3 1,
    lexer_mode 53 3 1, lexer_mode 53 3 1, lexer_mode 53 3 1, lexer_mode 53 3 1, lexer_mode 53 3 1,
    lexer_mode 53 3 1, lexer_mode 53 2 1, lexer_mode 53 3 1, lexer_mode 53 3 1, lexer_mode 53 2 1,
    lexer_mode 53 3 1, lexer_mode 53 2 1, lexer_mode 53 2 1, lexer_mode 53 3 1, lexer_mode 53 3 1,
    lexer_mode 53 3 1, lexer_mode 53 3 1, lexer_mode 53 2 1, lexer_mode 53 3 1, lexer_mode 53 3 1,
    lexer_mode 53 3 1, lexer_mode 53 3 1, lexer_mode 53 3 1, lexer_mode 53 2 1, lexer_mode 53 3 1]"

definition ts_lex_modes_43 :: "TSLexerMode list" where "ts_lex_modes_43 = [
    lexer_mode 53 3 1, lexer_mode 53 2 1, lexer_mode 53 2 1, lexer_mode 53 2 1, lexer_mode 53 2 1,
    lexer_mode 53 2 1, lexer_mode 53 2 1, lexer_mode 53 2 1, lexer_mode 53 2 1, lexer_mode 53 2 1,
    lexer_mode 53 2 1, lexer_mode 53 2 1, lexer_mode 53 3 1, lexer_mode 53 3 1, lexer_mode 53 3 1,
    lexer_mode 53 3 1, lexer_mode 53 3 1, lexer_mode 53 3 1, lexer_mode 53 3 1, lexer_mode 53 3 1,
    lexer_mode 53 3 1, lexer_mode 53 3 1, lexer_mode 53 3 1, lexer_mode 53 3 1, lexer_mode 53 3 1,
    lexer_mode 53 3 1, lexer_mode 53 3 1, lexer_mode 53 3 1, lexer_mode 53 3 1, lexer_mode 53 3 1,
    lexer_mode 53 3 1, lexer_mode 53 3 1, lexer_mode 53 3 1, lexer_mode 53 3 1, lexer_mode 53 3 1,
    lexer_mode 53 3 1, lexer_mode 53 3 1, lexer_mode 53 3 1, lexer_mode 53 3 1, lexer_mode 53 3 1,
    lexer_mode 53 3 1, lexer_mode 53 3 1, lexer_mode 53 3 1, lexer_mode 53 3 1, lexer_mode 53 3 1,
    lexer_mode 53 3 1, lexer_mode 53 3 1, lexer_mode 53 3 1, lexer_mode 53 3 1, lexer_mode 53 3 1,
    lexer_mode 53 3 1, lexer_mode 53 3 1, lexer_mode 53 3 1, lexer_mode 53 3 1, lexer_mode 53 3 1,
    lexer_mode 53 3 1, lexer_mode 53 2 1, lexer_mode 53 3 1, lexer_mode 53 3 1, lexer_mode 53 3 1,
    lexer_mode 53 3 1, lexer_mode 53 3 1, lexer_mode 53 3 1, lexer_mode 53 3 1, lexer_mode 53 3 1,
    lexer_mode 53 2 1, lexer_mode 53 3 1, lexer_mode 53 3 1, lexer_mode 53 3 1, lexer_mode 53 3 1,
    lexer_mode 53 2 1, lexer_mode 53 2 1, lexer_mode 53 2 1, lexer_mode 53 3 1, lexer_mode 53 2 1,
    lexer_mode 53 3 1, lexer_mode 53 3 1, lexer_mode 53 3 1, lexer_mode 53 3 1, lexer_mode 53 2 1,
    lexer_mode 53 2 1, lexer_mode 53 3 1, lexer_mode 53 2 1, lexer_mode 53 2 1, lexer_mode 53 3 1,
    lexer_mode 53 3 1, lexer_mode 53 2 1, lexer_mode 53 2 1, lexer_mode 53 2 1, lexer_mode 53 3 1,
    lexer_mode 53 3 1, lexer_mode 53 2 1, lexer_mode 53 3 1, lexer_mode 53 3 1, lexer_mode 53 3 1,
    lexer_mode 53 2 1, lexer_mode 53 3 1, lexer_mode 53 3 1, lexer_mode 53 2 1, lexer_mode 53 2 1,
    lexer_mode 53 3 1, lexer_mode 53 3 1, lexer_mode 53 3 1, lexer_mode 53 2 1, lexer_mode 53 3 1,
    lexer_mode 53 3 1, lexer_mode 53 2 1, lexer_mode 53 2 1, lexer_mode 53 2 1, lexer_mode 53 2 1,
    lexer_mode 53 3 1, lexer_mode 53 3 1, lexer_mode 53 3 1, lexer_mode 53 3 1, lexer_mode 53 2 1,
    lexer_mode 53 2 1, lexer_mode 53 3 1, lexer_mode 53 3 1, lexer_mode 53 3 1, lexer_mode 53 3 1,
    lexer_mode 53 2 1, lexer_mode 53 3 1, lexer_mode 53 2 1, lexer_mode 53 2 1, lexer_mode 53 2 1,
    lexer_mode 53 3 1, lexer_mode 53 3 1, lexer_mode 53 2 1, lexer_mode 53 2 1, lexer_mode 53 2 1,
    lexer_mode 53 2 1, lexer_mode 53 3 1, lexer_mode 53 3 1, lexer_mode 53 3 1, lexer_mode 53 2 1,
    lexer_mode 53 2 1, lexer_mode 53 2 1, lexer_mode 53 3 1, lexer_mode 53 2 1, lexer_mode 53 2 1,
    lexer_mode 53 3 1, lexer_mode 53 2 1, lexer_mode 53 2 1, lexer_mode 53 3 1, lexer_mode 53 3 1,
    lexer_mode 53 2 1, lexer_mode 53 2 1, lexer_mode 53 2 1, lexer_mode 53 3 1, lexer_mode 53 2 1]"

definition ts_lex_modes_44 :: "TSLexerMode list" where "ts_lex_modes_44 = [
    lexer_mode 53 2 1, lexer_mode 53 3 1, lexer_mode 53 2 1, lexer_mode 53 2 1, lexer_mode 53 2 1,
    lexer_mode 53 3 1, lexer_mode 53 3 1, lexer_mode 53 3 1, lexer_mode 53 3 1, lexer_mode 53 3 1,
    lexer_mode 53 3 1, lexer_mode 53 2 1, lexer_mode 53 2 1, lexer_mode 53 2 1, lexer_mode 53 3 1,
    lexer_mode 53 3 1, lexer_mode 53 2 1, lexer_mode 53 2 1, lexer_mode 53 3 1, lexer_mode 53 2 1,
    lexer_mode 53 2 1, lexer_mode 53 3 1, lexer_mode 53 3 1, lexer_mode 53 3 1, lexer_mode 53 2 1,
    lexer_mode 53 3 1, lexer_mode 53 3 1, lexer_mode 53 2 1, lexer_mode 53 3 1, lexer_mode 53 2 1,
    lexer_mode 53 3 1, lexer_mode 53 3 1, lexer_mode 53 2 1, lexer_mode 53 2 1, lexer_mode 53 2 1,
    lexer_mode 53 3 1, lexer_mode 53 2 1, lexer_mode 53 2 1, lexer_mode 53 3 1, lexer_mode 53 3 1,
    lexer_mode 53 3 1, lexer_mode 53 3 1, lexer_mode 53 2 1, lexer_mode 53 3 1, lexer_mode 53 3 1,
    lexer_mode 53 3 1, lexer_mode 53 2 1, lexer_mode 53 3 1, lexer_mode 53 3 1, lexer_mode 53 2 1,
    lexer_mode 53 2 1, lexer_mode 53 2 1, lexer_mode 53 3 1, lexer_mode 53 3 1, lexer_mode 53 3 1,
    lexer_mode 53 3 1, lexer_mode 53 2 1, lexer_mode 53 3 1, lexer_mode 53 3 1, lexer_mode 53 3 1,
    lexer_mode 53 2 1, lexer_mode 53 3 1, lexer_mode 53 3 1, lexer_mode 53 2 1, lexer_mode 53 2 1,
    lexer_mode 53 2 1, lexer_mode 53 3 1, lexer_mode 53 3 1, lexer_mode 53 3 1, lexer_mode 53 3 1,
    lexer_mode 53 3 1, lexer_mode 53 2 1, lexer_mode 53 3 1, lexer_mode 53 3 1, lexer_mode 53 3 1,
    lexer_mode 53 3 1, lexer_mode 53 3 1, lexer_mode 53 3 1, lexer_mode 53 3 1, lexer_mode 53 2 1,
    lexer_mode 53 2 1, lexer_mode 53 2 1, lexer_mode 53 2 1, lexer_mode 53 2 1, lexer_mode 53 2 1,
    lexer_mode 53 2 1, lexer_mode 53 2 1, lexer_mode 53 2 1, lexer_mode 53 2 1, lexer_mode 53 2 1,
    lexer_mode 53 2 1, lexer_mode 53 2 1, lexer_mode 53 2 1, lexer_mode 53 2 1, lexer_mode 53 2 1,
    lexer_mode 53 2 1, lexer_mode 53 2 1, lexer_mode 53 2 1, lexer_mode 53 3 1, lexer_mode 53 3 1,
    lexer_mode 53 3 1, lexer_mode 53 3 1, lexer_mode 53 3 1, lexer_mode 53 3 1, lexer_mode 53 3 1,
    lexer_mode 53 2 1, lexer_mode 53 2 1, lexer_mode 53 2 1, lexer_mode 53 2 1, lexer_mode 53 2 1,
    lexer_mode 53 2 1, lexer_mode 53 2 1, lexer_mode 53 2 1, lexer_mode 53 2 1, lexer_mode 53 3 1,
    lexer_mode 53 3 1, lexer_mode 53 3 1, lexer_mode 53 3 1, lexer_mode 53 2 1, lexer_mode 53 8 1,
    lexer_mode 53 8 1, lexer_mode 53 2 25, lexer_mode 53 2 25, lexer_mode 8 11 0,
    lexer_mode 53 7 1, lexer_mode 53 2 28, lexer_mode 9 5 1, lexer_mode 8 11 0, lexer_mode 53 7 1,
    lexer_mode 7 5 0, lexer_mode 53 2 1, lexer_mode 53 7 1, lexer_mode 53 6 1, lexer_mode 9 5 1,
    lexer_mode 53 2 1, lexer_mode 53 2 19, lexer_mode 53 6 1, lexer_mode 53 7 1, lexer_mode 53 2 1,
    lexer_mode 53 2 1, lexer_mode 53 2 1, lexer_mode 53 2 1, lexer_mode 53 2 1, lexer_mode 53 2 1,
    lexer_mode 53 2 19, lexer_mode 53 2 1, lexer_mode 53 2 1, lexer_mode 53 2 1, lexer_mode 8 11 0,
    lexer_mode 53 2 19]"

definition ts_lex_modes_45 :: "TSLexerMode list" where "ts_lex_modes_45 = [
    lexer_mode 8 11 0, lexer_mode 7 5 0, lexer_mode 53 2 19, lexer_mode 8 11 0, lexer_mode 53 2 1,
    lexer_mode 53 2 1, lexer_mode 53 2 1, lexer_mode 53 2 1, lexer_mode 7 5 0, lexer_mode 8 11 0,
    lexer_mode 53 7 1, lexer_mode 53 2 1, lexer_mode 7 5 0, lexer_mode 8 11 0, lexer_mode 8 11 0,
    lexer_mode 8 11 0, lexer_mode 7 11 0, lexer_mode 53 2 29, lexer_mode 7 11 0, lexer_mode 8 11 0,
    lexer_mode 8 11 0, lexer_mode 7 11 0, lexer_mode 53 2 29, lexer_mode 7 11 0, lexer_mode 7 11 0,
    lexer_mode 7 11 0, lexer_mode 7 11 0, lexer_mode 7 11 0, lexer_mode 7 11 0, lexer_mode 53 2 29,
    lexer_mode 7 11 0, lexer_mode 7 11 0, lexer_mode 7 11 0, lexer_mode 7 11 0, lexer_mode 53 2 29,
    lexer_mode 53 2 29, lexer_mode 8 11 0, lexer_mode 7 11 0, lexer_mode 7 11 0, lexer_mode 7 11 0,
    lexer_mode 7 11 0, lexer_mode 7 11 0, lexer_mode 53 2 29, lexer_mode 7 11 0, lexer_mode 7 11 0,
    lexer_mode 7 11 0, lexer_mode 7 11 0, lexer_mode 7 11 0, lexer_mode 7 11 0, lexer_mode 7 11 0,
    lexer_mode 7 11 0, lexer_mode 53 2 29, lexer_mode 53 2 29, lexer_mode 7 11 0,
    lexer_mode 53 2 29, lexer_mode 53 2 29, lexer_mode 53 2 29, lexer_mode 53 2 29,
    lexer_mode 7 11 0, lexer_mode 7 11 0, lexer_mode 53 2 19, lexer_mode 53 2 19,
    lexer_mode 53 2 19, lexer_mode 53 2 19, lexer_mode 53 2 19, lexer_mode 53 2 19,
    lexer_mode 53 2 19, lexer_mode 53 2 1, lexer_mode 53 2 19, lexer_mode 7 11 0,
    lexer_mode 53 2 19, lexer_mode 53 2 19, lexer_mode 53 2 19, lexer_mode 53 2 19,
    lexer_mode 53 2 19, lexer_mode 53 2 19, lexer_mode 53 2 19, lexer_mode 53 2 19,
    lexer_mode 53 2 19, lexer_mode 53 2 19, lexer_mode 53 2 19, lexer_mode 53 2 19,
    lexer_mode 53 2 19, lexer_mode 53 2 19, lexer_mode 53 2 19, lexer_mode 53 2 19,
    lexer_mode 7 11 0, lexer_mode 53 2 19, lexer_mode 7 11 0, lexer_mode 53 2 19,
    lexer_mode 53 2 19, lexer_mode 53 2 19, lexer_mode 53 2 19, lexer_mode 53 2 19,
    lexer_mode 53 2 19, lexer_mode 7 11 0, lexer_mode 53 2 19, lexer_mode 53 2 19,
    lexer_mode 53 2 19, lexer_mode 53 2 19, lexer_mode 53 2 19, lexer_mode 53 2 19,
    lexer_mode 53 2 19, lexer_mode 53 2 19, lexer_mode 53 2 19, lexer_mode 7 11 0,
    lexer_mode 53 2 19, lexer_mode 53 2 19, lexer_mode 53 2 19, lexer_mode 53 2 19,
    lexer_mode 53 2 19, lexer_mode 53 2 19, lexer_mode 53 2 19, lexer_mode 53 2 19,
    lexer_mode 53 2 19, lexer_mode 7 11 0, lexer_mode 7 11 0, lexer_mode 53 2 19,
    lexer_mode 53 2 19, lexer_mode 53 2 19, lexer_mode 7 11 0, lexer_mode 53 2 19,
    lexer_mode 53 2 19, lexer_mode 53 2 19, lexer_mode 53 2 19, lexer_mode 53 2 19,
    lexer_mode 53 2 19, lexer_mode 53 2 19, lexer_mode 53 2 19, lexer_mode 53 2 19,
    lexer_mode 53 2 1, lexer_mode 53 2 19, lexer_mode 53 2 19, lexer_mode 53 2 19,
    lexer_mode 53 2 19, lexer_mode 53 2 19, lexer_mode 53 2 19, lexer_mode 53 2 19,
    lexer_mode 7 11 0, lexer_mode 53 2 1, lexer_mode 53 2 19, lexer_mode 7 11 0,
    lexer_mode 53 2 19, lexer_mode 53 2 19, lexer_mode 53 2 19, lexer_mode 53 2 19,
    lexer_mode 53 2 19, lexer_mode 53 2 19, lexer_mode 53 2 19, lexer_mode 53 2 19]"

definition ts_lex_modes_46 :: "TSLexerMode list" where "ts_lex_modes_46 = [
    lexer_mode 53 2 19, lexer_mode 53 2 19, lexer_mode 53 2 19, lexer_mode 53 2 19,
    lexer_mode 53 2 19, lexer_mode 53 2 19, lexer_mode 53 2 19, lexer_mode 53 2 19,
    lexer_mode 53 2 19, lexer_mode 53 2 19, lexer_mode 53 2 19, lexer_mode 53 2 19,
    lexer_mode 53 2 19, lexer_mode 14 12 0, lexer_mode 53 2 19, lexer_mode 53 2 1,
    lexer_mode 53 2 1, lexer_mode 53 2 19, lexer_mode 53 2 19, lexer_mode 53 2 19,
    lexer_mode 53 2 19, lexer_mode 53 2 19, lexer_mode 53 2 19, lexer_mode 53 2 1,
    lexer_mode 53 2 19, lexer_mode 53 2 19, lexer_mode 53 2 19, lexer_mode 53 2 19,
    lexer_mode 53 2 19, lexer_mode 53 2 19, lexer_mode 53 2 19, lexer_mode 53 2 19,
    lexer_mode 53 2 19, lexer_mode 14 11 0, lexer_mode 14 13 0, lexer_mode 14 5 0,
    lexer_mode 14 5 0, lexer_mode 14 5 0, lexer_mode 14 14 0, lexer_mode 14 6 0,
    lexer_mode 15 11 0, lexer_mode 14 6 0, lexer_mode 14 5 0, lexer_mode 14 5 0, lexer_mode 14 7 0,
    lexer_mode 14 12 0, lexer_mode 14 12 0, lexer_mode 14 12 0, lexer_mode 14 12 0,
    lexer_mode 14 12 0, lexer_mode 14 12 0, lexer_mode 14 12 0, lexer_mode 14 12 0,
    lexer_mode 14 12 0, lexer_mode 14 2 0, lexer_mode 14 7 0, lexer_mode 14 7 0,
    lexer_mode 15 11 0, lexer_mode 14 2 0, lexer_mode 14 6 0, lexer_mode 14 12 0,
    lexer_mode 14 2 0, lexer_mode 15 11 0, lexer_mode 14 14 0, lexer_mode 14 11 0,
    lexer_mode 14 11 0, lexer_mode 14 11 0, lexer_mode 14 11 0, lexer_mode 14 11 0,
    lexer_mode 14 11 0, lexer_mode 14 11 0, lexer_mode 14 11 0, lexer_mode 14 11 0,
    lexer_mode 14 11 0, lexer_mode 14 12 0, lexer_mode 14 11 0, lexer_mode 14 12 0,
    lexer_mode 14 12 0, lexer_mode 14 12 0, lexer_mode 14 12 0, lexer_mode 14 12 0,
    lexer_mode 14 12 0, lexer_mode 14 11 0, lexer_mode 14 11 0, lexer_mode 14 11 0,
    lexer_mode 14 11 0, lexer_mode 14 11 0, lexer_mode 14 11 0, lexer_mode 14 11 0,
    lexer_mode 14 11 0, lexer_mode 14 11 0, lexer_mode 14 11 0, lexer_mode 14 11 0,
    lexer_mode 14 11 0, lexer_mode 14 11 0, lexer_mode 14 11 0, lexer_mode 14 11 0,
    lexer_mode 14 11 0, lexer_mode 14 11 0, lexer_mode 14 11 0, lexer_mode 14 11 0,
    lexer_mode 14 11 0, lexer_mode 14 11 0, lexer_mode 14 11 0, lexer_mode 14 11 0,
    lexer_mode 14 11 0, lexer_mode 14 11 0, lexer_mode 14 11 0, lexer_mode 14 11 0,
    lexer_mode 15 12 0, lexer_mode 14 11 0, lexer_mode 14 11 0, lexer_mode 14 11 0,
    lexer_mode 15 12 0, lexer_mode 14 11 0, lexer_mode 14 11 0, lexer_mode 15 12 0,
    lexer_mode 14 11 0, lexer_mode 14 11 0, lexer_mode 14 13 0, lexer_mode 14 13 0,
    lexer_mode 14 13 0, lexer_mode 14 13 0, lexer_mode 14 13 0, lexer_mode 14 13 0,
    lexer_mode 14 13 0, lexer_mode 14 13 0, lexer_mode 14 11 0, lexer_mode 14 11 0,
    lexer_mode 14 11 0, lexer_mode 14 11 0, lexer_mode 14 11 0, lexer_mode 14 11 0,
    lexer_mode 14 11 0, lexer_mode 14 11 0, lexer_mode 14 11 0, lexer_mode 14 11 0,
    lexer_mode 14 11 0, lexer_mode 14 11 0, lexer_mode 14 13 0, lexer_mode 14 13 0,
    lexer_mode 14 11 0, lexer_mode 14 14 0, lexer_mode 14 14 0, lexer_mode 14 11 0,
    lexer_mode 15 12 0, lexer_mode 14 14 0, lexer_mode 14 14 0, lexer_mode 14 14 0,
    lexer_mode 14 11 0]"

definition ts_lex_modes_47 :: "TSLexerMode list" where "ts_lex_modes_47 = [
    lexer_mode 14 11 0, lexer_mode 14 14 0, lexer_mode 14 14 0, lexer_mode 14 14 0,
    lexer_mode 14 14 0, lexer_mode 14 11 0, lexer_mode 14 11 0, lexer_mode 14 11 0,
    lexer_mode 14 11 0, lexer_mode 15 12 0, lexer_mode 15 12 0, lexer_mode 14 11 0,
    lexer_mode 14 11 0, lexer_mode 15 12 0, lexer_mode 14 11 0, lexer_mode 14 11 0,
    lexer_mode 14 11 0, lexer_mode 15 11 0, lexer_mode 15 12 0, lexer_mode 15 14 0,
    lexer_mode 15 13 0, lexer_mode 15 14 0, lexer_mode 14 12 0, lexer_mode 15 14 0,
    lexer_mode 15 11 0, lexer_mode 15 12 0, lexer_mode 15 14 0, lexer_mode 15 11 0,
    lexer_mode 14 7 0, lexer_mode 15 14 0, lexer_mode 14 14 0, lexer_mode 14 2 0,
    lexer_mode 14 7 0, lexer_mode 15 14 0, lexer_mode 14 14 0, lexer_mode 15 14 0,
    lexer_mode 15 13 0, lexer_mode 15 13 0, lexer_mode 15 14 0, lexer_mode 15 13 0,
    lexer_mode 15 12 0, lexer_mode 15 11 0, lexer_mode 14 14 0, lexer_mode 14 14 0,
    lexer_mode 15 12 0, lexer_mode 14 2 0, lexer_mode 14 6 0, lexer_mode 15 12 0,
    lexer_mode 14 14 0, lexer_mode 14 6 0, lexer_mode 15 13 0, lexer_mode 15 11 0,
    lexer_mode 14 14 0, lexer_mode 14 14 0, lexer_mode 15 14 0, lexer_mode 15 13 0,
    lexer_mode 15 13 0, lexer_mode 14 11 0, lexer_mode 15 13 0, lexer_mode 15 11 0,
    lexer_mode 15 11 0, lexer_mode 15 14 0, lexer_mode 15 13 0, lexer_mode 14 13 0,
    lexer_mode 14 14 0, lexer_mode 14 14 0, lexer_mode 14 14 0, lexer_mode 14 13 0,
    lexer_mode 14 13 0, lexer_mode 14 13 0, lexer_mode 14 13 0, lexer_mode 14 14 0,
    lexer_mode 14 13 0, lexer_mode 14 14 0, lexer_mode 14 14 0, lexer_mode 14 14 0,
    lexer_mode 14 12 0, lexer_mode 14 12 0, lexer_mode 14 14 0, lexer_mode 14 14 0,
    lexer_mode 14 14 0, lexer_mode 14 14 0, lexer_mode 14 13 0, lexer_mode 14 14 0,
    lexer_mode 14 14 0, lexer_mode 14 14 0, lexer_mode 14 14 0, lexer_mode 14 14 0,
    lexer_mode 14 14 0, lexer_mode 14 14 0, lexer_mode 14 14 0, lexer_mode 14 14 0,
    lexer_mode 14 13 0, lexer_mode 14 14 0, lexer_mode 14 14 0, lexer_mode 14 14 0,
    lexer_mode 14 14 0, lexer_mode 14 13 0, lexer_mode 14 14 0, lexer_mode 14 12 0,
    lexer_mode 14 12 0, lexer_mode 14 12 0, lexer_mode 14 12 0, lexer_mode 14 13 0,
    lexer_mode 14 12 0, lexer_mode 14 12 0, lexer_mode 14 12 0, lexer_mode 14 12 0,
    lexer_mode 14 13 0, lexer_mode 14 13 0, lexer_mode 14 13 0, lexer_mode 14 13 0,
    lexer_mode 14 13 0, lexer_mode 14 13 0, lexer_mode 14 13 0, lexer_mode 14 13 0,
    lexer_mode 14 13 0, lexer_mode 14 14 0, lexer_mode 14 13 0, lexer_mode 14 13 0,
    lexer_mode 14 12 0, lexer_mode 14 12 0, lexer_mode 14 12 0, lexer_mode 14 12 0,
    lexer_mode 14 12 0, lexer_mode 14 12 0, lexer_mode 14 12 0, lexer_mode 14 12 0,
    lexer_mode 14 12 0, lexer_mode 14 12 0, lexer_mode 14 12 0, lexer_mode 14 14 0,
    lexer_mode 14 14 0, lexer_mode 14 14 0, lexer_mode 14 14 0, lexer_mode 14 14 0,
    lexer_mode 14 12 0, lexer_mode 14 12 0, lexer_mode 14 12 0, lexer_mode 14 12 0,
    lexer_mode 14 12 0, lexer_mode 14 14 0, lexer_mode 14 12 0, lexer_mode 14 13 0,
    lexer_mode 14 14 0, lexer_mode 14 14 0, lexer_mode 14 14 0, lexer_mode 14 14 0,
    lexer_mode 14 14 0, lexer_mode 14 12 0]"

definition ts_lex_modes_48 :: "TSLexerMode list" where "ts_lex_modes_48 = [
    lexer_mode 14 12 0, lexer_mode 14 14 0, lexer_mode 14 12 0, lexer_mode 14 14 0,
    lexer_mode 14 14 0, lexer_mode 14 14 0, lexer_mode 14 14 0, lexer_mode 14 14 0,
    lexer_mode 14 14 0, lexer_mode 14 14 0, lexer_mode 14 14 0, lexer_mode 14 14 0,
    lexer_mode 14 12 0, lexer_mode 14 12 0, lexer_mode 14 14 0, lexer_mode 14 14 0,
    lexer_mode 14 14 0, lexer_mode 14 14 0, lexer_mode 14 13 0, lexer_mode 14 14 0,
    lexer_mode 14 13 0, lexer_mode 14 14 0, lexer_mode 14 13 0, lexer_mode 14 13 0,
    lexer_mode 14 14 0, lexer_mode 14 12 0, lexer_mode 14 14 0, lexer_mode 14 14 0,
    lexer_mode 14 13 0, lexer_mode 14 12 0, lexer_mode 14 12 0, lexer_mode 14 13 0,
    lexer_mode 14 12 0, lexer_mode 14 13 0, lexer_mode 14 13 0, lexer_mode 14 12 0,
    lexer_mode 14 12 0, lexer_mode 14 12 0, lexer_mode 14 12 0, lexer_mode 14 12 0,
    lexer_mode 14 12 0, lexer_mode 14 12 0, lexer_mode 14 12 0, lexer_mode 14 12 0,
    lexer_mode 14 12 0, lexer_mode 14 12 0, lexer_mode 14 12 0, lexer_mode 14 12 0,
    lexer_mode 14 12 0, lexer_mode 14 13 0, lexer_mode 14 12 0, lexer_mode 14 12 0,
    lexer_mode 14 12 0, lexer_mode 14 12 0, lexer_mode 14 12 0, lexer_mode 14 13 0,
    lexer_mode 14 12 0, lexer_mode 14 12 0, lexer_mode 14 12 0, lexer_mode 14 12 0,
    lexer_mode 14 12 0, lexer_mode 14 13 0, lexer_mode 15 14 0, lexer_mode 15 14 0,
    lexer_mode 14 13 0, lexer_mode 14 13 0, lexer_mode 14 13 0, lexer_mode 14 13 0,
    lexer_mode 14 13 0, lexer_mode 15 11 0, lexer_mode 14 13 0, lexer_mode 14 13 0,
    lexer_mode 14 12 0, lexer_mode 14 12 0, lexer_mode 14 13 0, lexer_mode 14 13 0,
    lexer_mode 15 11 0, lexer_mode 14 13 0, lexer_mode 14 14 0, lexer_mode 14 13 0,
    lexer_mode 14 13 0, lexer_mode 14 13 0, lexer_mode 14 12 0, lexer_mode 14 13 0,
    lexer_mode 14 13 0, lexer_mode 14 13 0, lexer_mode 15 13 0, lexer_mode 14 13 0,
    lexer_mode 14 13 0, lexer_mode 14 13 0, lexer_mode 14 13 0, lexer_mode 14 13 0,
    lexer_mode 15 13 0, lexer_mode 14 13 0, lexer_mode 14 14 0, lexer_mode 14 13 0,
    lexer_mode 14 12 0, lexer_mode 14 14 0, lexer_mode 14 12 0, lexer_mode 14 13 0,
    lexer_mode 14 13 0, lexer_mode 14 13 0, lexer_mode 14 12 0, lexer_mode 14 13 0,
    lexer_mode 14 14 0, lexer_mode 14 13 0, lexer_mode 14 15 0, lexer_mode 14 13 0,
    lexer_mode 14 11 0, lexer_mode 14 13 0, lexer_mode 14 11 0, lexer_mode 14 13 0,
    lexer_mode 14 14 0, lexer_mode 14 14 0, lexer_mode 14 13 0, lexer_mode 14 14 0,
    lexer_mode 14 13 0, lexer_mode 14 12 0, lexer_mode 14 15 0, lexer_mode 14 11 0,
    lexer_mode 14 11 0, lexer_mode 14 11 0, lexer_mode 14 14 0, lexer_mode 14 14 0,
    lexer_mode 14 11 0, lexer_mode 14 13 0, lexer_mode 14 11 0, lexer_mode 14 14 0,
    lexer_mode 14 14 0, lexer_mode 14 11 0, lexer_mode 14 12 0, lexer_mode 14 12 0,
    lexer_mode 14 11 0, lexer_mode 14 11 0, lexer_mode 14 6 0, lexer_mode 14 12 0,
    lexer_mode 14 11 0, lexer_mode 14 12 0, lexer_mode 14 6 0, lexer_mode 14 14 0,
    lexer_mode 14 11 0, lexer_mode 14 11 0, lexer_mode 14 12 0, lexer_mode 14 11 0,
    lexer_mode 14 11 0, lexer_mode 14 12 0, lexer_mode 14 12 0, lexer_mode 14 6 0,
    lexer_mode 14 12 0, lexer_mode 14 12 0]"

definition ts_lex_modes_49 :: "TSLexerMode list" where "ts_lex_modes_49 = [
    lexer_mode 14 12 0, lexer_mode 14 11 0, lexer_mode 14 11 0, lexer_mode 15 12 0,
    lexer_mode 15 12 0, lexer_mode 14 12 0, lexer_mode 15 12 0, lexer_mode 15 12 0,
    lexer_mode 15 12 0, lexer_mode 14 12 0, lexer_mode 14 8 0, lexer_mode 14 15 0,
    lexer_mode 14 14 0, lexer_mode 14 13 0, lexer_mode 14 14 0, lexer_mode 14 15 0,
    lexer_mode 14 13 0, lexer_mode 14 8 0, lexer_mode 14 14 0, lexer_mode 14 14 0,
    lexer_mode 14 8 0, lexer_mode 14 15 0, lexer_mode 14 12 0, lexer_mode 14 13 0,
    lexer_mode 14 6 0, lexer_mode 14 14 0, lexer_mode 14 12 0, lexer_mode 14 14 0,
    lexer_mode 14 15 0, lexer_mode 14 15 0, lexer_mode 14 15 0, lexer_mode 15 12 0,
    lexer_mode 14 13 0, lexer_mode 4 2 1, lexer_mode 14 12 0, lexer_mode 14 15 0,
    lexer_mode 14 15 0, lexer_mode 14 15 0, lexer_mode 14 15 0, lexer_mode 14 15 0,
    lexer_mode 14 15 0, lexer_mode 14 8 0, lexer_mode 14 15 0, lexer_mode 14 15 0,
    lexer_mode 14 14 0, lexer_mode 14 12 0, lexer_mode 14 15 0, lexer_mode 14 15 0,
    lexer_mode 14 8 0, lexer_mode 14 8 0, lexer_mode 14 14 0, lexer_mode 14 15 0,
    lexer_mode 14 13 0, lexer_mode 14 13 0, lexer_mode 15 12 0, lexer_mode 14 13 0,
    lexer_mode 14 12 0, lexer_mode 14 12 0, lexer_mode 14 15 0, lexer_mode 14 14 0,
    lexer_mode 14 14 0, lexer_mode 14 15 0, lexer_mode 14 12 0, lexer_mode 14 15 0,
    lexer_mode 15 12 0, lexer_mode 14 12 0, lexer_mode 15 12 0, lexer_mode 14 13 0,
    lexer_mode 14 13 0, lexer_mode 14 14 0, lexer_mode 14 6 0, lexer_mode 14 13 0,
    lexer_mode 15 12 0, lexer_mode 14 12 0, lexer_mode 14 15 0, lexer_mode 14 12 0,
    lexer_mode 14 15 0, lexer_mode 14 12 0, lexer_mode 14 15 0, lexer_mode 14 12 0,
    lexer_mode 14 15 0, lexer_mode 14 15 0, lexer_mode 14 15 0, lexer_mode 14 15 0,
    lexer_mode 14 15 0, lexer_mode 14 15 0, lexer_mode 14 15 0, lexer_mode 14 15 0,
    lexer_mode 14 15 0, lexer_mode 14 15 0, lexer_mode 14 15 0, lexer_mode 14 15 0,
    lexer_mode 14 15 0, lexer_mode 14 15 0, lexer_mode 14 15 0, lexer_mode 14 15 0,
    lexer_mode 14 12 0, lexer_mode 14 12 0, lexer_mode 14 12 0, lexer_mode 14 12 0,
    lexer_mode 14 12 0, lexer_mode 14 14 0, lexer_mode 15 12 0, lexer_mode 14 12 0,
    lexer_mode 14 14 0, lexer_mode 14 14 0, lexer_mode 14 14 0, lexer_mode 14 7 0,
    lexer_mode 14 14 0, lexer_mode 14 14 0, lexer_mode 14 12 0, lexer_mode 14 12 0,
    lexer_mode 14 14 0, lexer_mode 14 12 0, lexer_mode 14 12 0, lexer_mode 14 12 0,
    lexer_mode 14 14 0, lexer_mode 14 12 0, lexer_mode 14 12 0, lexer_mode 14 12 0,
    lexer_mode 14 12 0, lexer_mode 14 13 0, lexer_mode 14 12 0, lexer_mode 14 14 0,
    lexer_mode 14 12 0, lexer_mode 14 13 0, lexer_mode 14 12 0, lexer_mode 14 12 0,
    lexer_mode 14 12 0, lexer_mode 14 12 0, lexer_mode 14 7 0, lexer_mode 14 12 0,
    lexer_mode 15 15 0, lexer_mode 14 13 0, lexer_mode 14 12 0, lexer_mode 14 12 0,
    lexer_mode 14 12 0, lexer_mode 14 12 0, lexer_mode 14 12 0, lexer_mode 14 12 0,
    lexer_mode 14 14 0, lexer_mode 14 12 0, lexer_mode 14 12 0, lexer_mode 14 12 0,
    lexer_mode 14 12 0, lexer_mode 14 12 0, lexer_mode 14 12 0, lexer_mode 14 12 0,
    lexer_mode 14 12 0, lexer_mode 14 12 0]"

definition ts_lex_modes_50 :: "TSLexerMode list" where "ts_lex_modes_50 = [
    lexer_mode 14 12 0, lexer_mode 14 12 0, lexer_mode 14 12 0, lexer_mode 14 12 0,
    lexer_mode 14 12 0, lexer_mode 14 12 0, lexer_mode 14 12 0, lexer_mode 14 12 0,
    lexer_mode 15 12 0, lexer_mode 14 7 0, lexer_mode 14 12 0, lexer_mode 14 12 0,
    lexer_mode 14 12 0, lexer_mode 14 13 0, lexer_mode 15 12 0, lexer_mode 15 15 0,
    lexer_mode 14 12 0, lexer_mode 15 15 0, lexer_mode 14 12 0, lexer_mode 14 12 0,
    lexer_mode 14 12 0, lexer_mode 15 12 0, lexer_mode 15 15 0, lexer_mode 15 12 0,
    lexer_mode 15 15 0, lexer_mode 15 15 0, lexer_mode 15 14 0, lexer_mode 15 12 0,
    lexer_mode 14 8 0, lexer_mode 15 12 0, lexer_mode 15 12 0, lexer_mode 15 15 0,
    lexer_mode 14 8 0, lexer_mode 15 14 0, lexer_mode 15 14 0, lexer_mode 15 12 0,
    lexer_mode 15 14 0, lexer_mode 15 15 0, lexer_mode 15 12 0, lexer_mode 15 15 0,
    lexer_mode 15 15 0, lexer_mode 15 12 0, lexer_mode 14 8 0, lexer_mode 15 12 0,
    lexer_mode 15 15 0, lexer_mode 15 12 0, lexer_mode 15 15 0, lexer_mode 14 8 0,
    lexer_mode 15 15 0, lexer_mode 15 12 0, lexer_mode 15 15 0, lexer_mode 15 12 0,
    lexer_mode 15 15 0, lexer_mode 14 15 0, lexer_mode 14 15 0, lexer_mode 14 15 0,
    lexer_mode 14 15 0, lexer_mode 14 15 0, lexer_mode 14 15 0, lexer_mode 14 15 0,
    lexer_mode 14 15 0, lexer_mode 14 14 0, lexer_mode 14 15 0, lexer_mode 53 2 1,
    lexer_mode 14 15 0, lexer_mode 14 15 0, lexer_mode 15 14 0, lexer_mode 14 15 0,
    lexer_mode 14 15 0, lexer_mode 14 15 0, lexer_mode 14 15 0, lexer_mode 14 15 0,
    lexer_mode 15 14 0, lexer_mode 14 15 0, lexer_mode 14 15 0, lexer_mode 14 15 0,
    lexer_mode 14 15 0, lexer_mode 14 15 0, lexer_mode 14 15 0, lexer_mode 15 14 0,
    lexer_mode 15 14 0, lexer_mode 14 7 0, lexer_mode 15 12 0, lexer_mode 14 15 0,
    lexer_mode 15 12 0, lexer_mode 14 14 0, lexer_mode 14 11 0, lexer_mode 15 12 0,
    lexer_mode 14 7 0, lexer_mode 14 14 0, lexer_mode 14 15 0, lexer_mode 14 15 0,
    lexer_mode 14 15 0, lexer_mode 14 15 0, lexer_mode 14 15 0, lexer_mode 14 15 0,
    lexer_mode 15 12 0, lexer_mode 14 14 0, lexer_mode 14 15 0, lexer_mode 14 15 0,
    lexer_mode 14 15 0, lexer_mode 14 15 0, lexer_mode 14 15 0, lexer_mode 14 15 0,
    lexer_mode 14 14 0, lexer_mode 14 15 0, lexer_mode 14 14 0, lexer_mode 14 14 0,
    lexer_mode 14 14 0, lexer_mode 14 14 0, lexer_mode 14 15 0, lexer_mode 14 14 0,
    lexer_mode 15 12 0, lexer_mode 14 15 0, lexer_mode 14 14 0, lexer_mode 14 15 0,
    lexer_mode 14 15 0, lexer_mode 15 14 0, lexer_mode 14 15 0, lexer_mode 14 15 0,
    lexer_mode 14 15 0, lexer_mode 14 15 0, lexer_mode 14 15 0, lexer_mode 14 15 0,
    lexer_mode 14 15 0, lexer_mode 14 15 0, lexer_mode 14 14 0, lexer_mode 15 12 0,
    lexer_mode 14 15 0, lexer_mode 14 15 0, lexer_mode 14 15 0, lexer_mode 14 15 0,
    lexer_mode 14 15 0, lexer_mode 14 15 0, lexer_mode 15 14 0, lexer_mode 14 15 0,
    lexer_mode 14 15 0, lexer_mode 14 15 0, lexer_mode 14 15 0, lexer_mode 14 15 0,
    lexer_mode 14 15 0, lexer_mode 14 15 0, lexer_mode 14 15 0, lexer_mode 14 15 0,
    lexer_mode 14 15 0, lexer_mode 14 15 0, lexer_mode 15 12 0, lexer_mode 14 15 0,
    lexer_mode 14 15 0, lexer_mode 14 15 0]"

definition ts_lex_modes_51 :: "TSLexerMode list" where "ts_lex_modes_51 = [
    lexer_mode 14 15 0, lexer_mode 14 15 0, lexer_mode 14 15 0, lexer_mode 14 15 0,
    lexer_mode 15 14 0, lexer_mode 14 15 0, lexer_mode 14 14 0, lexer_mode 14 15 0,
    lexer_mode 14 15 0, lexer_mode 14 15 0, lexer_mode 14 14 0, lexer_mode 14 15 0,
    lexer_mode 14 15 0, lexer_mode 14 15 0, lexer_mode 14 15 0, lexer_mode 14 15 0,
    lexer_mode 14 15 0, lexer_mode 14 15 0, lexer_mode 14 15 0, lexer_mode 14 15 0,
    lexer_mode 14 15 0, lexer_mode 14 15 0, lexer_mode 15 12 0, lexer_mode 14 15 0,
    lexer_mode 14 15 0, lexer_mode 14 15 0, lexer_mode 14 15 0, lexer_mode 14 15 0,
    lexer_mode 14 15 0, lexer_mode 14 15 0, lexer_mode 14 15 0, lexer_mode 14 15 0,
    lexer_mode 14 15 0, lexer_mode 14 15 0, lexer_mode 14 15 0, lexer_mode 14 14 0,
    lexer_mode 14 15 0, lexer_mode 14 15 0, lexer_mode 14 14 0, lexer_mode 14 15 0,
    lexer_mode 15 14 0, lexer_mode 14 15 0, lexer_mode 14 15 0, lexer_mode 14 15 0,
    lexer_mode 15 14 0, lexer_mode 14 15 0, lexer_mode 14 15 0, lexer_mode 14 14 0,
    lexer_mode 14 14 0, lexer_mode 14 15 0, lexer_mode 15 14 0, lexer_mode 14 15 0,
    lexer_mode 15 14 0, lexer_mode 15 14 0, lexer_mode 15 14 0, lexer_mode 14 14 0,
    lexer_mode 14 12 0, lexer_mode 14 14 0, lexer_mode 14 14 0, lexer_mode 14 14 0,
    lexer_mode 15 12 0, lexer_mode 14 14 0, lexer_mode 14 14 0, lexer_mode 14 14 0,
    lexer_mode 14 14 0, lexer_mode 14 14 0, lexer_mode 15 14 0, lexer_mode 15 14 0,
    lexer_mode 14 14 0, lexer_mode 14 14 0, lexer_mode 14 14 0, lexer_mode 15 12 0,
    lexer_mode 15 12 0, lexer_mode 14 14 0, lexer_mode 14 14 0, lexer_mode 14 12 0,
    lexer_mode 14 14 0, lexer_mode 14 14 0, lexer_mode 14 12 0, lexer_mode 7 11 0,
    lexer_mode 7 11 0, lexer_mode 7 11 0, lexer_mode 7 11 0, lexer_mode 14 14 0,
    lexer_mode 14 14 0, lexer_mode 14 14 0, lexer_mode 14 14 0, lexer_mode 14 14 0,
    lexer_mode 7 11 0, lexer_mode 14 12 0, lexer_mode 14 14 0, lexer_mode 14 14 0,
    lexer_mode 15 12 0, lexer_mode 14 14 0, lexer_mode 14 14 0, lexer_mode 14 14 0,
    lexer_mode 14 14 0, lexer_mode 14 14 0, lexer_mode 14 14 0, lexer_mode 15 14 0,
    lexer_mode 14 14 0, lexer_mode 7 11 0, lexer_mode 7 11 0, lexer_mode 14 14 0,
    lexer_mode 14 14 0, lexer_mode 14 14 0, lexer_mode 14 14 0, lexer_mode 14 14 0,
    lexer_mode 14 14 0, lexer_mode 14 12 0, lexer_mode 15 12 0, lexer_mode 14 14 0,
    lexer_mode 15 12 0, lexer_mode 15 12 0, lexer_mode 15 12 0, lexer_mode 14 14 0,
    lexer_mode 14 12 0, lexer_mode 14 12 0, lexer_mode 14 14 0, lexer_mode 15 15 0,
    lexer_mode 15 15 0, lexer_mode 15 12 0, lexer_mode 15 12 0, lexer_mode 14 14 0,
    lexer_mode 14 14 0, lexer_mode 15 15 0, lexer_mode 15 14 0, lexer_mode 15 14 0,
    lexer_mode 14 14 0, lexer_mode 15 13 0, lexer_mode 15 15 0, lexer_mode 53 2 1,
    lexer_mode 15 13 0, lexer_mode 15 15 0, lexer_mode 14 13 0, lexer_mode 14 12 0,
    lexer_mode 14 12 0, lexer_mode 14 14 0, lexer_mode 15 13 0, lexer_mode 14 14 0,
    lexer_mode 15 15 0, lexer_mode 7 13 0, lexer_mode 7 13 0, lexer_mode 7 13 0, lexer_mode 7 13 0,
    lexer_mode 7 13 0, lexer_mode 7 13 0, lexer_mode 7 13 0, lexer_mode 7 13 0, lexer_mode 7 13 0]"

definition ts_lex_modes_52 :: "TSLexerMode list" where "ts_lex_modes_52 = [
    lexer_mode 7 13 0, lexer_mode 7 13 0, lexer_mode 7 13 0, lexer_mode 7 13 0, lexer_mode 7 13 0,
    lexer_mode 7 13 0, lexer_mode 7 13 0, lexer_mode 7 13 0, lexer_mode 7 13 0, lexer_mode 7 13 0,
    lexer_mode 7 13 0, lexer_mode 7 13 0, lexer_mode 7 13 0, lexer_mode 7 13 0, lexer_mode 7 13 0,
    lexer_mode 7 13 0, lexer_mode 7 13 0, lexer_mode 14 15 0, lexer_mode 7 13 0,
    lexer_mode 14 15 0, lexer_mode 7 13 0, lexer_mode 7 13 0, lexer_mode 4 2 1, lexer_mode 4 2 1,
    lexer_mode 7 12 0, lexer_mode 7 12 0, lexer_mode 7 13 0, lexer_mode 4 13 30, lexer_mode 7 13 0,
    lexer_mode 4 13 1, lexer_mode 7 11 0, lexer_mode 4 13 30, lexer_mode 4 13 30,
    lexer_mode 7 14 0, lexer_mode 4 13 30, lexer_mode 7 14 0, lexer_mode 4 13 30,
    lexer_mode 4 13 1, lexer_mode 4 13 30, lexer_mode 4 13 30, lexer_mode 4 13 30,
    lexer_mode 4 13 30, lexer_mode 4 13 30, lexer_mode 4 13 30, lexer_mode 4 13 30,
    lexer_mode 4 13 1, lexer_mode 7 11 0, lexer_mode 4 7 1, lexer_mode 4 7 1, lexer_mode 4 6 31,
    lexer_mode 4 7 31, lexer_mode 4 7 1, lexer_mode 4 7 1, lexer_mode 4 7 31, lexer_mode 4 6 1,
    lexer_mode 4 6 1, lexer_mode 4 7 1, lexer_mode 4 6 1, lexer_mode 4 6 1, lexer_mode 4 7 1,
    lexer_mode 4 6 1, lexer_mode 4 14 1, lexer_mode 4 7 1, lexer_mode 4 7 1, lexer_mode 4 7 31,
    lexer_mode 4 7 1, lexer_mode 4 7 1, lexer_mode 4 7 1, lexer_mode 4 6 1, lexer_mode 4 7 31,
    lexer_mode 4 7 1, lexer_mode 4 7 1, lexer_mode 4 6 1, lexer_mode 4 7 1, lexer_mode 4 6 31,
    lexer_mode 4 14 30, lexer_mode 4 6 31, lexer_mode 4 6 1, lexer_mode 4 2 1, lexer_mode 4 7 1,
    lexer_mode 4 7 1, lexer_mode 4 2 1, lexer_mode 4 2 1, lexer_mode 4 6 1, lexer_mode 4 2 1,
    lexer_mode 4 7 31, lexer_mode 4 2 1, lexer_mode 4 7 1, lexer_mode 4 7 1, lexer_mode 4 7 31,
    lexer_mode 4 2 1, lexer_mode 4 2 1, lexer_mode 4 14 1, lexer_mode 4 2 1, lexer_mode 4 2 1,
    lexer_mode 4 2 1, lexer_mode 4 13 1, lexer_mode 4 14 1, lexer_mode 4 13 1, lexer_mode 4 8 1,
    lexer_mode 4 8 1, lexer_mode 4 8 1, lexer_mode 4 8 1, lexer_mode 4 8 31, lexer_mode 4 13 1,
    lexer_mode 4 8 1, lexer_mode 4 8 1, lexer_mode 4 8 31, lexer_mode 4 13 1, lexer_mode 4 8 1,
    lexer_mode 4 8 1, lexer_mode 4 8 1, lexer_mode 4 8 1, lexer_mode 4 8 1, lexer_mode 4 8 31,
    lexer_mode 4 8 1, lexer_mode 4 8 31, lexer_mode 4 8 1, lexer_mode 4 8 31, lexer_mode 4 8 1,
    lexer_mode 4 8 1, lexer_mode 7 11 0, lexer_mode 4 2 1, lexer_mode 7 12 0, lexer_mode 7 11 0,
    lexer_mode 7 12 0, lexer_mode 4 2 1, lexer_mode 4 2 1, lexer_mode 53 2 1, lexer_mode 4 2 1,
    lexer_mode 53 2 1, lexer_mode 53 2 1, lexer_mode 4 2 1, lexer_mode 53 2 1, lexer_mode 53 2 1,
    lexer_mode 53 2 1, lexer_mode 53 2 1, lexer_mode 4 2 31, lexer_mode 4 2 1, lexer_mode 4 2 1,
    lexer_mode 4 2 1, lexer_mode 7 14 0, lexer_mode 7 12 0, lexer_mode 7 13 0, lexer_mode 7 14 0,
    lexer_mode 7 12 0, lexer_mode 7 13 0, lexer_mode 7 15 0, lexer_mode 7 15 0, lexer_mode 7 15 0]"

definition ts_lex_modes_53 :: "TSLexerMode list" where "ts_lex_modes_53 = [
    lexer_mode 7 15 0, lexer_mode 14 15 0, lexer_mode 7 14 0, lexer_mode 14 2 0,
    lexer_mode 14 15 0, lexer_mode 7 14 0, lexer_mode 14 13 0, lexer_mode 14 13 0,
    lexer_mode 14 15 0, lexer_mode 14 2 0, lexer_mode 14 15 0, lexer_mode 14 15 0,
    lexer_mode 14 15 0, lexer_mode 14 15 0, lexer_mode 14 13 0, lexer_mode 14 13 0,
    lexer_mode 14 2 0, lexer_mode 14 2 0, lexer_mode 14 2 0, lexer_mode 7 11 0, lexer_mode 7 11 0,
    lexer_mode 14 13 0, lexer_mode 14 13 0, lexer_mode 14 13 0, lexer_mode 14 13 0,
    lexer_mode 14 2 0, lexer_mode 14 2 0, lexer_mode 7 11 0, lexer_mode 14 13 0, lexer_mode 14 2 0,
    lexer_mode 14 2 0, lexer_mode 14 2 0, lexer_mode 14 13 0, lexer_mode 14 13 0,
    lexer_mode 14 2 0, lexer_mode 14 2 0, lexer_mode 14 2 0, lexer_mode 14 2 0, lexer_mode 14 2 0,
    lexer_mode 14 2 0, lexer_mode 14 2 0, lexer_mode 14 13 0, lexer_mode 14 14 0,
    lexer_mode 14 14 0, lexer_mode 14 14 0, lexer_mode 14 14 0, lexer_mode 13 11 0,
    lexer_mode 14 13 0, lexer_mode 14 13 0, lexer_mode 13 11 0, lexer_mode 14 14 0,
    lexer_mode 14 13 0, lexer_mode 14 14 0, lexer_mode 14 13 0, lexer_mode 14 13 0,
    lexer_mode 14 13 0, lexer_mode 14 13 0, lexer_mode 14 13 0, lexer_mode 14 13 0,
    lexer_mode 14 13 0, lexer_mode 14 14 0, lexer_mode 14 14 0, lexer_mode 7 12 0,
    lexer_mode 7 12 0, lexer_mode 7 12 0, lexer_mode 7 12 0, lexer_mode 7 12 0, lexer_mode 7 12 0,
    lexer_mode 14 12 0, lexer_mode 7 12 0, lexer_mode 7 12 0, lexer_mode 14 13 0,
    lexer_mode 14 13 0, lexer_mode 14 12 0, lexer_mode 14 12 0, lexer_mode 14 13 0,
    lexer_mode 14 13 0, lexer_mode 14 13 0, lexer_mode 14 12 0, lexer_mode 14 13 0,
    lexer_mode 7 12 0, lexer_mode 14 13 0, lexer_mode 13 11 0, lexer_mode 13 11 0,
    lexer_mode 13 11 0, lexer_mode 13 11 0, lexer_mode 7 13 0, lexer_mode 14 14 0,
    lexer_mode 14 14 0, lexer_mode 14 14 0, lexer_mode 14 14 0, lexer_mode 7 13 0,
    lexer_mode 14 14 0, lexer_mode 14 14 0, lexer_mode 7 12 0, lexer_mode 7 12 0,
    lexer_mode 7 12 0, lexer_mode 7 14 0, lexer_mode 14 13 0, lexer_mode 14 13 0,
    lexer_mode 14 13 0, lexer_mode 7 14 0, lexer_mode 7 13 0, lexer_mode 7 14 0,
    lexer_mode 14 14 0, lexer_mode 7 12 0, lexer_mode 7 12 0, lexer_mode 14 12 0,
    lexer_mode 14 12 0, lexer_mode 14 12 0, lexer_mode 7 12 0, lexer_mode 14 13 0,
    lexer_mode 7 12 0, lexer_mode 7 12 0, lexer_mode 7 12 0, lexer_mode 7 12 0, lexer_mode 7 14 0,
    lexer_mode 7 14 0, lexer_mode 7 14 0, lexer_mode 7 14 0, lexer_mode 7 14 0, lexer_mode 7 14 0,
    lexer_mode 7 11 0, lexer_mode 7 11 0, lexer_mode 7 13 0, lexer_mode 7 13 0, lexer_mode 7 13 0,
    lexer_mode 7 11 0, lexer_mode 13 13 0, lexer_mode 13 11 0, lexer_mode 14 13 0,
    lexer_mode 7 11 0, lexer_mode 7 13 0, lexer_mode 7 13 0, lexer_mode 7 14 0, lexer_mode 7 14 0,
    lexer_mode 13 13 0, lexer_mode 7 13 0, lexer_mode 7 13 0, lexer_mode 7 11 0, lexer_mode 7 11 0,
    lexer_mode 7 11 0, lexer_mode 7 11 0, lexer_mode 14 13 0, lexer_mode 7 13 0, lexer_mode 7 14 0,
    lexer_mode 7 11 0, lexer_mode 14 13 0, lexer_mode 7 12 0, lexer_mode 7 11 0]"

definition ts_lex_modes_54 :: "TSLexerMode list" where "ts_lex_modes_54 = [
    lexer_mode 14 13 0, lexer_mode 7 13 0, lexer_mode 13 13 0, lexer_mode 7 11 0,
    lexer_mode 7 13 0, lexer_mode 7 12 0, lexer_mode 7 11 0, lexer_mode 7 12 0, lexer_mode 7 12 0,
    lexer_mode 7 14 0, lexer_mode 7 13 0, lexer_mode 7 12 0, lexer_mode 7 12 0, lexer_mode 7 12 0,
    lexer_mode 7 12 0, lexer_mode 7 12 0, lexer_mode 7 12 0, lexer_mode 7 12 0, lexer_mode 7 12 0,
    lexer_mode 7 12 0, lexer_mode 7 12 0, lexer_mode 7 12 0, lexer_mode 7 12 0, lexer_mode 7 12 0,
    lexer_mode 7 12 0, lexer_mode 7 12 0, lexer_mode 7 12 0, lexer_mode 7 12 0, lexer_mode 7 12 0,
    lexer_mode 7 12 0, lexer_mode 7 12 0, lexer_mode 7 12 0, lexer_mode 7 12 0, lexer_mode 7 12 0,
    lexer_mode 7 12 0, lexer_mode 7 12 0, lexer_mode 7 12 0, lexer_mode 7 12 0, lexer_mode 7 12 0,
    lexer_mode 7 12 0, lexer_mode 7 12 0, lexer_mode 7 12 0, lexer_mode 7 12 0, lexer_mode 7 12 0,
    lexer_mode 7 12 0, lexer_mode 7 12 0, lexer_mode 7 12 0, lexer_mode 7 12 0, lexer_mode 7 12 0,
    lexer_mode 7 12 0, lexer_mode 7 12 0, lexer_mode 14 13 0, lexer_mode 14 13 0,
    lexer_mode 7 13 0, lexer_mode 14 13 0, lexer_mode 14 13 0, lexer_mode 7 12 0,
    lexer_mode 7 12 0, lexer_mode 14 13 0, lexer_mode 7 13 0, lexer_mode 7 12 0, lexer_mode 7 12 0,
    lexer_mode 7 12 0, lexer_mode 14 13 0, lexer_mode 7 13 0, lexer_mode 7 13 0, lexer_mode 7 12 0,
    lexer_mode 13 13 0, lexer_mode 7 13 0, lexer_mode 7 12 0, lexer_mode 7 12 0, lexer_mode 7 12 0,
    lexer_mode 7 12 0, lexer_mode 7 12 0, lexer_mode 7 12 0, lexer_mode 7 12 0, lexer_mode 7 12 0,
    lexer_mode 7 12 0, lexer_mode 7 12 0, lexer_mode 7 12 0, lexer_mode 14 13 0, lexer_mode 7 12 0,
    lexer_mode 7 12 0, lexer_mode 7 14 0, lexer_mode 7 14 0, lexer_mode 14 13 0, lexer_mode 7 12 0,
    lexer_mode 14 13 0, lexer_mode 7 12 0, lexer_mode 14 13 0, lexer_mode 7 12 0,
    lexer_mode 7 12 0, lexer_mode 7 12 0, lexer_mode 7 12 0, lexer_mode 7 12 0, lexer_mode 7 12 0,
    lexer_mode 7 14 0, lexer_mode 7 13 0, lexer_mode 7 13 0, lexer_mode 7 13 0, lexer_mode 7 12 0,
    lexer_mode 7 11 0, lexer_mode 7 12 0, lexer_mode 7 11 0, lexer_mode 7 11 0, lexer_mode 7 11 0,
    lexer_mode 7 12 0, lexer_mode 7 12 0, lexer_mode 7 12 0, lexer_mode 7 11 0, lexer_mode 7 11 0,
    lexer_mode 7 12 0, lexer_mode 7 13 0, lexer_mode 7 11 0, lexer_mode 7 11 0, lexer_mode 7 11 0,
    lexer_mode 7 11 0, lexer_mode 7 13 0, lexer_mode 7 11 0, lexer_mode 7 11 0, lexer_mode 7 14 0,
    lexer_mode 7 11 0, lexer_mode 7 11 0, lexer_mode 7 11 0, lexer_mode 7 11 0, lexer_mode 7 11 0,
    lexer_mode 7 14 0, lexer_mode 7 13 0, lexer_mode 7 13 0, lexer_mode 7 13 0, lexer_mode 7 13 0,
    lexer_mode 7 14 0, lexer_mode 7 13 0, lexer_mode 7 12 0, lexer_mode 7 12 0, lexer_mode 7 11 0,
    lexer_mode 7 11 0, lexer_mode 7 13 0, lexer_mode 7 14 0, lexer_mode 7 14 0, lexer_mode 7 12 0,
    lexer_mode 7 14 0, lexer_mode 7 12 0, lexer_mode 7 12 0, lexer_mode 7 13 0, lexer_mode 7 12 0,
    lexer_mode 7 13 0, lexer_mode 7 13 0, lexer_mode 7 11 0, lexer_mode 7 13 0]"

definition ts_lex_modes_55 :: "TSLexerMode list" where "ts_lex_modes_55 = [
    lexer_mode 7 13 0, lexer_mode 7 13 0, lexer_mode 7 13 0, lexer_mode 7 13 0, lexer_mode 7 13 0,
    lexer_mode 7 13 0, lexer_mode 7 11 0, lexer_mode 7 14 0, lexer_mode 7 14 0, lexer_mode 7 14 0,
    lexer_mode 7 14 0, lexer_mode 7 14 0, lexer_mode 7 14 0, lexer_mode 7 11 0, lexer_mode 7 11 0,
    lexer_mode 7 13 0, lexer_mode 7 13 0, lexer_mode 7 13 0, lexer_mode 7 14 0, lexer_mode 7 14 0,
    lexer_mode 7 14 0, lexer_mode 7 13 0, lexer_mode 7 14 0, lexer_mode 7 14 0, lexer_mode 7 14 0,
    lexer_mode 7 11 0, lexer_mode 7 14 0, lexer_mode 7 14 0, lexer_mode 7 14 0, lexer_mode 7 14 0,
    lexer_mode 7 13 0, lexer_mode 7 14 0, lexer_mode 7 11 0, lexer_mode 7 14 0, lexer_mode 7 14 0,
    lexer_mode 7 11 0, lexer_mode 7 11 0, lexer_mode 7 13 0, lexer_mode 7 11 0, lexer_mode 7 14 0,
    lexer_mode 7 11 0, lexer_mode 7 11 0, lexer_mode 7 13 0, lexer_mode 7 14 0, lexer_mode 7 14 0,
    lexer_mode 7 14 0, lexer_mode 7 14 0, lexer_mode 7 14 0, lexer_mode 7 14 0, lexer_mode 7 12 0,
    lexer_mode 7 14 0, lexer_mode 7 14 0, lexer_mode 7 14 0, lexer_mode 7 12 0, lexer_mode 7 14 0,
    lexer_mode 7 12 0, lexer_mode 7 13 0, lexer_mode 7 12 0, lexer_mode 7 14 0, lexer_mode 7 12 0,
    lexer_mode 7 13 0, lexer_mode 7 11 0, lexer_mode 7 11 0, lexer_mode 7 11 0, lexer_mode 7 11 0,
    lexer_mode 7 11 0, lexer_mode 7 12 0, lexer_mode 7 11 0, lexer_mode 7 11 0, lexer_mode 7 13 0,
    lexer_mode 7 13 0, lexer_mode 7 13 0, lexer_mode 7 13 0, lexer_mode 7 13 0, lexer_mode 7 13 0,
    lexer_mode 7 12 0, lexer_mode 7 12 0, lexer_mode 7 11 0, lexer_mode 7 13 0, lexer_mode 7 12 0,
    lexer_mode 7 12 0, lexer_mode 7 12 0, lexer_mode 7 12 0, lexer_mode 7 12 0, lexer_mode 7 12 0,
    lexer_mode 7 12 0, lexer_mode 7 12 0, lexer_mode 7 13 0, lexer_mode 7 12 0, lexer_mode 7 12 0,
    lexer_mode 7 13 0, lexer_mode 7 12 0, lexer_mode 7 12 0, lexer_mode 7 12 0, lexer_mode 7 12 0,
    lexer_mode 7 13 0, lexer_mode 7 13 0, lexer_mode 7 13 0, lexer_mode 7 13 0, lexer_mode 7 13 0,
    lexer_mode 7 13 0, lexer_mode 7 12 0, lexer_mode 7 13 0, lexer_mode 7 13 0, lexer_mode 7 13 0,
    lexer_mode 7 13 0, lexer_mode 7 13 0, lexer_mode 7 13 0, lexer_mode 7 13 0, lexer_mode 7 13 0,
    lexer_mode 7 13 0, lexer_mode 14 13 0, lexer_mode 7 11 0, lexer_mode 7 13 0, lexer_mode 7 13 0,
    lexer_mode 7 13 0, lexer_mode 7 13 0, lexer_mode 7 13 0, lexer_mode 7 13 0, lexer_mode 7 13 0,
    lexer_mode 7 13 0, lexer_mode 7 13 0, lexer_mode 7 13 0, lexer_mode 7 13 0, lexer_mode 7 13 0,
    lexer_mode 7 13 0, lexer_mode 7 13 0, lexer_mode 7 13 0, lexer_mode 7 11 0, lexer_mode 7 13 0,
    lexer_mode 7 13 0, lexer_mode 7 13 0, lexer_mode 7 13 0, lexer_mode 7 13 0, lexer_mode 7 13 0,
    lexer_mode 7 13 0, lexer_mode 7 13 0, lexer_mode 7 13 0, lexer_mode 7 13 0, lexer_mode 7 13 0,
    lexer_mode 7 13 0, lexer_mode 7 13 0, lexer_mode 7 13 0, lexer_mode 7 13 0, lexer_mode 7 13 0,
    lexer_mode 7 13 0, lexer_mode 7 13 0, lexer_mode 7 13 0, lexer_mode 7 13 0, lexer_mode 7 13 0]"

definition ts_lex_modes_56 :: "TSLexerMode list" where "ts_lex_modes_56 = [
    lexer_mode 7 13 0, lexer_mode 7 13 0, lexer_mode 7 13 0, lexer_mode 7 13 0, lexer_mode 7 13 0,
    lexer_mode 7 11 0, lexer_mode 7 13 0, lexer_mode 7 11 0, lexer_mode 7 11 0, lexer_mode 7 11 0,
    lexer_mode 7 11 0, lexer_mode 7 11 0, lexer_mode 7 11 0, lexer_mode 7 11 0, lexer_mode 7 11 0,
    lexer_mode 7 11 0, lexer_mode 7 11 0, lexer_mode 7 11 0, lexer_mode 7 11 0, lexer_mode 7 11 0,
    lexer_mode 7 11 0, lexer_mode 7 11 0, lexer_mode 7 11 0, lexer_mode 7 11 0, lexer_mode 7 11 0,
    lexer_mode 7 11 0, lexer_mode 7 11 0, lexer_mode 7 11 0, lexer_mode 7 11 0, lexer_mode 7 11 0,
    lexer_mode 7 11 0, lexer_mode 7 11 0, lexer_mode 7 11 0, lexer_mode 7 11 0, lexer_mode 7 11 0,
    lexer_mode 7 11 0, lexer_mode 7 11 0, lexer_mode 7 11 0, lexer_mode 7 11 0, lexer_mode 7 11 0,
    lexer_mode 7 11 0, lexer_mode 7 11 0, lexer_mode 7 11 0, lexer_mode 7 14 0, lexer_mode 7 14 0,
    lexer_mode 7 14 0, lexer_mode 7 14 0, lexer_mode 7 14 0, lexer_mode 7 14 0, lexer_mode 7 14 0,
    lexer_mode 7 14 0, lexer_mode 7 14 0, lexer_mode 7 14 0, lexer_mode 7 14 0, lexer_mode 7 14 0,
    lexer_mode 7 14 0, lexer_mode 7 14 0, lexer_mode 7 14 0, lexer_mode 7 14 0, lexer_mode 7 14 0,
    lexer_mode 7 14 0, lexer_mode 7 14 0, lexer_mode 7 14 0, lexer_mode 7 14 0, lexer_mode 7 14 0,
    lexer_mode 7 14 0, lexer_mode 7 14 0, lexer_mode 7 14 0, lexer_mode 7 14 0, lexer_mode 7 14 0,
    lexer_mode 7 14 0, lexer_mode 7 14 0, lexer_mode 7 14 0, lexer_mode 7 14 0, lexer_mode 7 14 0,
    lexer_mode 7 14 0, lexer_mode 7 14 0, lexer_mode 7 14 0, lexer_mode 7 14 0, lexer_mode 7 13 0,
    lexer_mode 7 14 0, lexer_mode 7 12 0, lexer_mode 7 12 0, lexer_mode 7 12 0, lexer_mode 7 12 0,
    lexer_mode 7 12 0, lexer_mode 7 12 0, lexer_mode 7 13 0, lexer_mode 7 13 0, lexer_mode 7 12 0,
    lexer_mode 7 14 0, lexer_mode 7 11 0, lexer_mode 7 13 0, lexer_mode 7 13 0, lexer_mode 7 13 0,
    lexer_mode 7 14 0, lexer_mode 7 11 0, lexer_mode 7 14 0, lexer_mode 7 14 0, lexer_mode 7 13 0,
    lexer_mode 7 14 0, lexer_mode 7 14 0, lexer_mode 7 11 0, lexer_mode 7 11 0, lexer_mode 7 11 0,
    lexer_mode 7 13 0, lexer_mode 7 13 0, lexer_mode 7 11 0, lexer_mode 7 11 0, lexer_mode 7 11 0,
    lexer_mode 7 11 0, lexer_mode 7 14 0, lexer_mode 7 13 0, lexer_mode 7 13 0, lexer_mode 7 13 0,
    lexer_mode 7 13 0, lexer_mode 7 13 0, lexer_mode 7 13 0, lexer_mode 7 13 0, lexer_mode 7 14 0,
    lexer_mode 7 13 0, lexer_mode 7 14 0, lexer_mode 7 13 0, lexer_mode 7 13 0, lexer_mode 7 13 0,
    lexer_mode 7 13 0, lexer_mode 7 13 0, lexer_mode 7 13 0, lexer_mode 7 13 0, lexer_mode 7 13 0,
    lexer_mode 7 14 0, lexer_mode 7 14 0, lexer_mode 7 14 0, lexer_mode 7 14 0, lexer_mode 7 14 0,
    lexer_mode 7 14 0, lexer_mode 7 12 0, lexer_mode 7 14 0, lexer_mode 7 13 0, lexer_mode 7 13 0,
    lexer_mode 7 11 0, lexer_mode 7 11 0, lexer_mode 7 11 0, lexer_mode 7 14 0, lexer_mode 7 13 0,
    lexer_mode 7 11 0, lexer_mode 7 11 0, lexer_mode 7 11 0, lexer_mode 7 12 0, lexer_mode 7 11 0]"

definition ts_lex_modes_57 :: "TSLexerMode list" where "ts_lex_modes_57 = [
    lexer_mode 7 11 0, lexer_mode 7 14 0, lexer_mode 7 14 0, lexer_mode 7 14 0, lexer_mode 7 14 0,
    lexer_mode 7 14 0, lexer_mode 7 14 0, lexer_mode 7 14 0, lexer_mode 7 11 0, lexer_mode 7 13 0,
    lexer_mode 7 11 0, lexer_mode 7 11 0, lexer_mode 7 11 0, lexer_mode 7 11 0, lexer_mode 7 11 0,
    lexer_mode 7 13 0, lexer_mode 7 13 0, lexer_mode 7 11 0, lexer_mode 7 12 0, lexer_mode 7 12 0,
    lexer_mode 7 11 0, lexer_mode 7 11 0, lexer_mode 7 13 0, lexer_mode 7 13 0, lexer_mode 7 13 0,
    lexer_mode 7 13 0, lexer_mode 7 13 0, lexer_mode 7 13 0, lexer_mode 13 13 0, lexer_mode 7 11 0,
    lexer_mode 7 11 0, lexer_mode 7 11 0, lexer_mode 7 11 0, lexer_mode 7 13 0, lexer_mode 7 11 0,
    lexer_mode 7 13 0, lexer_mode 7 13 0, lexer_mode 7 11 0, lexer_mode 7 12 0, lexer_mode 7 12 0,
    lexer_mode 7 11 0, lexer_mode 7 14 0, lexer_mode 7 14 0, lexer_mode 7 14 0, lexer_mode 7 14 0,
    lexer_mode 7 11 0, lexer_mode 7 14 0, lexer_mode 7 14 0, lexer_mode 7 11 0, lexer_mode 7 11 0,
    lexer_mode 7 13 0, lexer_mode 7 11 0, lexer_mode 7 11 0, lexer_mode 7 11 0, lexer_mode 7 11 0,
    lexer_mode 7 14 0, lexer_mode 7 14 0, lexer_mode 7 14 0, lexer_mode 7 14 0, lexer_mode 7 14 0,
    lexer_mode 7 14 0, lexer_mode 7 13 0, lexer_mode 7 13 0, lexer_mode 7 14 0, lexer_mode 7 14 0,
    lexer_mode 7 13 0, lexer_mode 7 14 0, lexer_mode 7 13 0, lexer_mode 7 12 0, lexer_mode 7 13 0,
    lexer_mode 7 13 0, lexer_mode 7 13 0, lexer_mode 7 13 0, lexer_mode 7 13 0, lexer_mode 7 13 0,
    lexer_mode 7 12 0, lexer_mode 7 13 0, lexer_mode 7 13 0, lexer_mode 7 11 0, lexer_mode 7 11 0,
    lexer_mode 7 14 0, lexer_mode 7 14 0, lexer_mode 7 14 0, lexer_mode 7 13 0, lexer_mode 7 12 0,
    lexer_mode 7 12 0, lexer_mode 7 13 0, lexer_mode 7 13 0, lexer_mode 7 14 0, lexer_mode 7 12 0,
    lexer_mode 7 13 0, lexer_mode 7 14 0, lexer_mode 7 13 0, lexer_mode 7 13 0, lexer_mode 7 13 0,
    lexer_mode 7 13 0, lexer_mode 7 13 0, lexer_mode 7 12 0, lexer_mode 7 13 0, lexer_mode 7 13 0,
    lexer_mode 7 13 0, lexer_mode 7 13 0, lexer_mode 7 13 0, lexer_mode 7 12 0, lexer_mode 7 13 0,
    lexer_mode 7 13 0, lexer_mode 7 13 0, lexer_mode 7 13 0, lexer_mode 7 13 0, lexer_mode 7 13 0,
    lexer_mode 7 13 0, lexer_mode 7 13 0, lexer_mode 7 13 0, lexer_mode 7 13 0, lexer_mode 7 13 0,
    lexer_mode 7 12 0, lexer_mode 7 13 0, lexer_mode 7 13 0, lexer_mode 7 13 0, lexer_mode 7 13 0,
    lexer_mode 7 13 0, lexer_mode 7 13 0, lexer_mode 7 13 0, lexer_mode 7 13 0, lexer_mode 7 13 0,
    lexer_mode 7 13 0, lexer_mode 7 13 0, lexer_mode 7 12 0, lexer_mode 7 11 0, lexer_mode 7 13 0,
    lexer_mode 7 13 0, lexer_mode 7 13 0, lexer_mode 7 13 0, lexer_mode 7 13 0, lexer_mode 7 13 0,
    lexer_mode 7 11 0, lexer_mode 7 12 0, lexer_mode 7 12 0, lexer_mode 7 12 0, lexer_mode 7 13 0,
    lexer_mode 7 12 0, lexer_mode 7 13 0, lexer_mode 7 13 0, lexer_mode 7 13 0, lexer_mode 7 13 0,
    lexer_mode 7 13 0, lexer_mode 7 13 0, lexer_mode 7 12 0, lexer_mode 7 12 0, lexer_mode 7 12 0]"

definition ts_lex_modes_58 :: "TSLexerMode list" where "ts_lex_modes_58 = [
    lexer_mode 7 12 0, lexer_mode 7 12 0, lexer_mode 7 12 0, lexer_mode 7 12 0, lexer_mode 7 12 0,
    lexer_mode 7 12 0, lexer_mode 7 12 0, lexer_mode 7 12 0, lexer_mode 7 12 0, lexer_mode 7 12 0,
    lexer_mode 7 12 0, lexer_mode 7 12 0, lexer_mode 7 12 0, lexer_mode 7 12 0, lexer_mode 7 12 0,
    lexer_mode 7 12 0, lexer_mode 7 12 0, lexer_mode 7 12 0, lexer_mode 7 12 0, lexer_mode 7 12 0,
    lexer_mode 7 12 0, lexer_mode 7 12 0, lexer_mode 7 12 0, lexer_mode 7 12 0, lexer_mode 7 12 0,
    lexer_mode 7 12 0, lexer_mode 7 12 0, lexer_mode 7 12 0, lexer_mode 7 12 0, lexer_mode 7 12 0,
    lexer_mode 7 12 0, lexer_mode 7 12 0, lexer_mode 7 12 0, lexer_mode 7 12 0, lexer_mode 7 12 0,
    lexer_mode 7 12 0, lexer_mode 7 12 0, lexer_mode 7 12 0, lexer_mode 7 12 0, lexer_mode 7 12 0,
    lexer_mode 7 12 0, lexer_mode 7 12 0, lexer_mode 7 12 0, lexer_mode 7 12 0, lexer_mode 7 12 0,
    lexer_mode 7 12 0, lexer_mode 7 12 0, lexer_mode 7 12 0, lexer_mode 7 12 0, lexer_mode 7 12 0,
    lexer_mode 7 12 0, lexer_mode 7 12 0, lexer_mode 7 12 0, lexer_mode 7 12 0, lexer_mode 7 12 0,
    lexer_mode 7 12 0, lexer_mode 7 12 0, lexer_mode 7 12 0, lexer_mode 7 12 0, lexer_mode 7 12 0,
    lexer_mode 7 12 0, lexer_mode 7 12 0, lexer_mode 7 12 0, lexer_mode 7 12 0, lexer_mode 7 12 0,
    lexer_mode 7 13 0, lexer_mode 7 12 0, lexer_mode 7 12 0, lexer_mode 7 12 0, lexer_mode 7 12 0,
    lexer_mode 7 12 0, lexer_mode 7 12 0, lexer_mode 7 12 0, lexer_mode 7 12 0, lexer_mode 7 12 0,
    lexer_mode 7 12 0, lexer_mode 7 12 0, lexer_mode 7 12 0, lexer_mode 7 12 0, lexer_mode 7 12 0,
    lexer_mode 7 12 0, lexer_mode 7 12 0, lexer_mode 7 12 0, lexer_mode 7 12 0, lexer_mode 7 12 0,
    lexer_mode 7 12 0, lexer_mode 7 12 0, lexer_mode 7 12 0, lexer_mode 7 12 0, lexer_mode 7 12 0,
    lexer_mode 7 12 0, lexer_mode 7 12 0, lexer_mode 7 12 0, lexer_mode 7 12 0, lexer_mode 7 12 0,
    lexer_mode 7 12 0, lexer_mode 7 12 0, lexer_mode 7 12 0, lexer_mode 7 12 0, lexer_mode 7 12 0,
    lexer_mode 7 12 0, lexer_mode 7 12 0, lexer_mode 7 12 0, lexer_mode 7 12 0, lexer_mode 7 12 0,
    lexer_mode 7 12 0, lexer_mode 7 12 0, lexer_mode 7 12 0, lexer_mode 7 12 0, lexer_mode 7 12 0,
    lexer_mode 7 12 0, lexer_mode 7 12 0, lexer_mode 7 12 0, lexer_mode 7 12 0, lexer_mode 7 12 0,
    lexer_mode 7 12 0, lexer_mode 7 12 0, lexer_mode 7 12 0, lexer_mode 7 12 0, lexer_mode 7 12 0,
    lexer_mode 7 12 0, lexer_mode 7 12 0, lexer_mode 7 12 0, lexer_mode 7 12 0, lexer_mode 7 12 0,
    lexer_mode 7 12 0, lexer_mode 7 13 0, lexer_mode 7 13 0, lexer_mode 7 13 0, lexer_mode 7 13 0,
    lexer_mode 7 13 0, lexer_mode 7 13 0, lexer_mode 7 13 0, lexer_mode 7 13 0, lexer_mode 7 13 0,
    lexer_mode 7 13 0, lexer_mode 7 13 0, lexer_mode 7 13 0, lexer_mode 7 13 0, lexer_mode 7 13 0,
    lexer_mode 7 13 0, lexer_mode 7 13 0, lexer_mode 7 13 0, lexer_mode 7 13 0, lexer_mode 7 12 0,
    lexer_mode 7 13 0, lexer_mode 7 12 0, lexer_mode 7 12 0, lexer_mode 7 11 0, lexer_mode 7 12 0]"

definition ts_lex_modes_59 :: "TSLexerMode list" where "ts_lex_modes_59 = [
    lexer_mode 7 12 0, lexer_mode 7 12 0, lexer_mode 7 12 0, lexer_mode 7 12 0, lexer_mode 7 12 0,
    lexer_mode 7 12 0, lexer_mode 7 12 0, lexer_mode 7 12 0, lexer_mode 7 12 0, lexer_mode 7 12 0,
    lexer_mode 7 12 0, lexer_mode 7 12 0, lexer_mode 7 12 0, lexer_mode 7 12 0, lexer_mode 7 12 0,
    lexer_mode 7 12 0, lexer_mode 7 12 0, lexer_mode 7 12 0, lexer_mode 7 12 0, lexer_mode 7 12 0,
    lexer_mode 7 12 0, lexer_mode 7 12 0, lexer_mode 7 12 0, lexer_mode 7 12 0, lexer_mode 7 12 0,
    lexer_mode 7 12 0, lexer_mode 7 12 0, lexer_mode 7 12 0, lexer_mode 7 12 0, lexer_mode 7 12 0,
    lexer_mode 7 12 0, lexer_mode 7 12 0, lexer_mode 7 12 0, lexer_mode 7 12 0, lexer_mode 7 12 0,
    lexer_mode 7 12 0, lexer_mode 7 14 0, lexer_mode 7 11 0, lexer_mode 7 14 0, lexer_mode 7 14 0,
    lexer_mode 7 11 0, lexer_mode 7 11 0, lexer_mode 7 11 0, lexer_mode 7 11 0, lexer_mode 7 11 0,
    lexer_mode 7 11 0, lexer_mode 7 11 0, lexer_mode 7 11 0, lexer_mode 7 11 0, lexer_mode 7 11 0,
    lexer_mode 7 11 0, lexer_mode 7 11 0, lexer_mode 7 11 0, lexer_mode 7 11 0, lexer_mode 7 11 0,
    lexer_mode 7 11 0, lexer_mode 7 11 0, lexer_mode 7 11 0, lexer_mode 7 11 0, lexer_mode 7 11 0,
    lexer_mode 7 11 0, lexer_mode 7 11 0, lexer_mode 7 11 0, lexer_mode 7 11 0, lexer_mode 7 11 0,
    lexer_mode 7 11 0, lexer_mode 7 11 0, lexer_mode 7 11 0, lexer_mode 7 11 0, lexer_mode 7 11 0,
    lexer_mode 7 11 0, lexer_mode 7 11 0, lexer_mode 7 11 0, lexer_mode 7 11 0, lexer_mode 7 11 0,
    lexer_mode 7 11 0, lexer_mode 7 11 0, lexer_mode 7 13 0, lexer_mode 7 11 0, lexer_mode 7 11 0,
    lexer_mode 7 11 0, lexer_mode 7 11 0, lexer_mode 7 11 0, lexer_mode 7 11 0, lexer_mode 7 11 0,
    lexer_mode 7 11 0, lexer_mode 7 11 0, lexer_mode 7 13 0, lexer_mode 7 11 0, lexer_mode 7 11 0,
    lexer_mode 7 11 0, lexer_mode 7 11 0, lexer_mode 7 11 0, lexer_mode 7 11 0, lexer_mode 7 11 0,
    lexer_mode 7 11 0, lexer_mode 7 11 0, lexer_mode 7 11 0, lexer_mode 7 13 0, lexer_mode 7 11 0,
    lexer_mode 7 11 0, lexer_mode 7 11 0, lexer_mode 7 11 0, lexer_mode 7 11 0, lexer_mode 7 11 0,
    lexer_mode 7 11 0, lexer_mode 7 11 0, lexer_mode 7 11 0, lexer_mode 7 11 0, lexer_mode 7 11 0,
    lexer_mode 7 11 0, lexer_mode 7 11 0, lexer_mode 7 11 0, lexer_mode 7 11 0, lexer_mode 7 11 0,
    lexer_mode 7 11 0, lexer_mode 7 13 0, lexer_mode 7 11 0, lexer_mode 7 11 0, lexer_mode 7 11 0,
    lexer_mode 7 13 0, lexer_mode 7 11 0, lexer_mode 7 11 0, lexer_mode 7 11 0, lexer_mode 7 11 0,
    lexer_mode 7 11 0, lexer_mode 7 11 0, lexer_mode 7 11 0, lexer_mode 7 11 0, lexer_mode 7 11 0,
    lexer_mode 7 11 0, lexer_mode 7 11 0, lexer_mode 7 11 0, lexer_mode 7 11 0, lexer_mode 7 11 0,
    lexer_mode 7 11 0, lexer_mode 7 11 0, lexer_mode 7 11 0, lexer_mode 7 11 0, lexer_mode 7 11 0,
    lexer_mode 7 11 0, lexer_mode 7 11 0, lexer_mode 7 11 0, lexer_mode 7 11 0, lexer_mode 7 11 0,
    lexer_mode 7 11 0, lexer_mode 7 11 0, lexer_mode 7 11 0, lexer_mode 7 11 0, lexer_mode 7 11 0]"

definition ts_lex_modes_60 :: "TSLexerMode list" where "ts_lex_modes_60 = [
    lexer_mode 7 11 0, lexer_mode 7 11 0, lexer_mode 7 13 0, lexer_mode 7 11 0, lexer_mode 7 11 0,
    lexer_mode 7 11 0, lexer_mode 7 13 0, lexer_mode 7 13 0, lexer_mode 7 13 0, lexer_mode 7 14 0,
    lexer_mode 7 13 0, lexer_mode 7 13 0, lexer_mode 7 11 0, lexer_mode 7 13 0, lexer_mode 7 13 0,
    lexer_mode 7 11 0, lexer_mode 7 14 0, lexer_mode 7 11 0, lexer_mode 7 11 0, lexer_mode 7 13 0,
    lexer_mode 7 12 0, lexer_mode 7 13 0, lexer_mode 7 13 0, lexer_mode 7 13 0, lexer_mode 7 14 0,
    lexer_mode 7 13 0, lexer_mode 7 13 0, lexer_mode 7 14 0, lexer_mode 7 12 0, lexer_mode 7 12 0,
    lexer_mode 7 13 0, lexer_mode 7 14 0, lexer_mode 7 13 0, lexer_mode 7 14 0, lexer_mode 7 13 0,
    lexer_mode 7 13 0, lexer_mode 7 13 0, lexer_mode 7 13 0, lexer_mode 7 13 0, lexer_mode 7 11 0,
    lexer_mode 7 13 0, lexer_mode 7 13 0, lexer_mode 7 13 0, lexer_mode 7 13 0, lexer_mode 7 13 0,
    lexer_mode 7 13 0, lexer_mode 7 13 0, lexer_mode 7 13 0, lexer_mode 7 13 0, lexer_mode 7 13 0,
    lexer_mode 7 13 0, lexer_mode 7 13 0, lexer_mode 7 14 0, lexer_mode 7 13 0, lexer_mode 7 14 0,
    lexer_mode 7 14 0, lexer_mode 7 13 0, lexer_mode 7 13 0, lexer_mode 7 13 0, lexer_mode 7 11 0,
    lexer_mode 7 15 0, lexer_mode 7 15 0, lexer_mode 7 11 0, lexer_mode 7 13 0, lexer_mode 7 14 0,
    lexer_mode 7 11 0, lexer_mode 7 11 0, lexer_mode 7 15 0, lexer_mode 7 13 0, lexer_mode 7 13 0,
    lexer_mode 7 11 0, lexer_mode 7 13 0, lexer_mode 7 13 0, lexer_mode 7 13 0, lexer_mode 7 13 0,
    lexer_mode 7 13 0, lexer_mode 7 13 0, lexer_mode 7 13 0, lexer_mode 7 13 0, lexer_mode 7 13 0,
    lexer_mode 7 13 0, lexer_mode 7 13 0, lexer_mode 7 13 0, lexer_mode 7 13 0, lexer_mode 7 13 0,
    lexer_mode 7 13 0, lexer_mode 7 13 0, lexer_mode 7 13 0, lexer_mode 7 13 0, lexer_mode 7 13 0,
    lexer_mode 7 11 0, lexer_mode 7 13 0, lexer_mode 7 14 0, lexer_mode 7 13 0, lexer_mode 7 13 0,
    lexer_mode 7 13 0, lexer_mode 7 13 0, lexer_mode 7 13 0, lexer_mode 7 13 0, lexer_mode 7 11 0,
    lexer_mode 7 13 0, lexer_mode 7 13 0, lexer_mode 7 13 0, lexer_mode 7 13 0, lexer_mode 7 12 0,
    lexer_mode 7 14 0, lexer_mode 7 15 0, lexer_mode 7 14 0, lexer_mode 7 15 0, lexer_mode 7 13 0,
    lexer_mode 7 13 0, lexer_mode 7 13 0, lexer_mode 7 13 0, lexer_mode 7 13 0, lexer_mode 7 13 0,
    lexer_mode 7 13 0, lexer_mode 7 13 0, lexer_mode 7 13 0, lexer_mode 7 13 0, lexer_mode 7 13 0,
    lexer_mode 7 13 0, lexer_mode 7 13 0, lexer_mode 7 13 0, lexer_mode 7 13 0, lexer_mode 7 13 0,
    lexer_mode 7 13 0, lexer_mode 7 14 0, lexer_mode 7 13 0, lexer_mode 7 14 0, lexer_mode 7 13 0,
    lexer_mode 7 13 0, lexer_mode 7 13 0, lexer_mode 7 13 0, lexer_mode 7 13 0, lexer_mode 7 13 0,
    lexer_mode 7 13 0, lexer_mode 7 13 0, lexer_mode 7 13 0, lexer_mode 7 14 0, lexer_mode 7 14 0,
    lexer_mode 7 14 0, lexer_mode 7 14 0, lexer_mode 7 14 0, lexer_mode 7 14 0, lexer_mode 7 14 0,
    lexer_mode 7 14 0, lexer_mode 7 14 0, lexer_mode 7 14 0, lexer_mode 7 14 0, lexer_mode 7 14 0]"

definition ts_lex_modes_61 :: "TSLexerMode list" where "ts_lex_modes_61 = [
    lexer_mode 7 14 0, lexer_mode 7 14 0, lexer_mode 7 14 0, lexer_mode 7 14 0, lexer_mode 7 14 0,
    lexer_mode 7 14 0, lexer_mode 7 14 0, lexer_mode 7 14 0, lexer_mode 7 14 0, lexer_mode 7 14 0,
    lexer_mode 7 14 0, lexer_mode 7 14 0, lexer_mode 7 14 0, lexer_mode 7 14 0, lexer_mode 7 14 0,
    lexer_mode 7 14 0, lexer_mode 7 14 0, lexer_mode 7 14 0, lexer_mode 7 14 0, lexer_mode 7 14 0,
    lexer_mode 7 14 0, lexer_mode 7 14 0, lexer_mode 7 14 0, lexer_mode 7 14 0, lexer_mode 7 14 0,
    lexer_mode 7 14 0, lexer_mode 7 14 0, lexer_mode 7 14 0, lexer_mode 7 14 0, lexer_mode 7 14 0,
    lexer_mode 7 13 0, lexer_mode 7 14 0, lexer_mode 7 14 0, lexer_mode 7 14 0, lexer_mode 7 14 0,
    lexer_mode 7 14 0, lexer_mode 7 14 0, lexer_mode 7 14 0, lexer_mode 7 14 0, lexer_mode 7 14 0,
    lexer_mode 7 14 0, lexer_mode 7 14 0, lexer_mode 7 14 0, lexer_mode 7 14 0, lexer_mode 7 14 0,
    lexer_mode 7 14 0, lexer_mode 7 14 0, lexer_mode 7 14 0, lexer_mode 7 14 0, lexer_mode 7 13 0,
    lexer_mode 7 14 0, lexer_mode 7 14 0, lexer_mode 7 15 0, lexer_mode 7 14 0, lexer_mode 7 14 0,
    lexer_mode 7 14 0, lexer_mode 7 14 0, lexer_mode 7 14 0, lexer_mode 7 14 0, lexer_mode 7 14 0,
    lexer_mode 7 14 0, lexer_mode 7 14 0, lexer_mode 7 14 0, lexer_mode 7 14 0, lexer_mode 7 14 0,
    lexer_mode 7 14 0, lexer_mode 7 14 0, lexer_mode 7 14 0, lexer_mode 7 14 0, lexer_mode 7 14 0,
    lexer_mode 7 14 0, lexer_mode 7 14 0, lexer_mode 7 14 0, lexer_mode 7 14 0, lexer_mode 7 14 0,
    lexer_mode 7 14 0, lexer_mode 7 14 0, lexer_mode 7 14 0, lexer_mode 7 14 0, lexer_mode 7 14 0,
    lexer_mode 7 14 0, lexer_mode 7 14 0, lexer_mode 7 14 0, lexer_mode 7 14 0, lexer_mode 7 14 0,
    lexer_mode 7 14 0, lexer_mode 7 14 0, lexer_mode 7 14 0, lexer_mode 7 14 0, lexer_mode 7 14 0,
    lexer_mode 7 14 0, lexer_mode 7 14 0, lexer_mode 7 14 0, lexer_mode 7 14 0, lexer_mode 7 14 0,
    lexer_mode 7 14 0, lexer_mode 7 14 0, lexer_mode 7 14 0, lexer_mode 7 14 0, lexer_mode 7 14 0,
    lexer_mode 7 14 0, lexer_mode 7 14 0, lexer_mode 7 14 0, lexer_mode 7 14 0, lexer_mode 7 14 0,
    lexer_mode 7 14 0, lexer_mode 7 14 0, lexer_mode 7 14 0, lexer_mode 7 14 0, lexer_mode 7 14 0,
    lexer_mode 7 14 0, lexer_mode 7 14 0, lexer_mode 7 14 0, lexer_mode 7 14 0, lexer_mode 7 14 0,
    lexer_mode 7 14 0, lexer_mode 7 14 0, lexer_mode 7 13 0, lexer_mode 7 13 0, lexer_mode 7 13 0,
    lexer_mode 7 13 0, lexer_mode 7 13 0, lexer_mode 7 13 0, lexer_mode 7 15 0, lexer_mode 7 13 0,
    lexer_mode 7 13 0, lexer_mode 7 12 0, lexer_mode 7 13 0, lexer_mode 7 13 0, lexer_mode 7 13 0,
    lexer_mode 7 13 0, lexer_mode 7 13 0, lexer_mode 7 13 0, lexer_mode 7 13 0, lexer_mode 7 13 0,
    lexer_mode 7 13 0, lexer_mode 7 11 0, lexer_mode 7 13 0, lexer_mode 7 13 0, lexer_mode 7 13 0,
    lexer_mode 7 13 0, lexer_mode 7 13 0, lexer_mode 7 13 0, lexer_mode 7 13 0, lexer_mode 7 13 0,
    lexer_mode 7 13 0, lexer_mode 7 13 0, lexer_mode 7 13 0, lexer_mode 7 13 0, lexer_mode 7 13 0]"

definition ts_lex_modes_62 :: "TSLexerMode list" where "ts_lex_modes_62 = [
    lexer_mode 7 13 0, lexer_mode 7 11 0, lexer_mode 7 13 0, lexer_mode 7 13 0, lexer_mode 7 13 0,
    lexer_mode 7 13 0, lexer_mode 7 13 0, lexer_mode 7 13 0, lexer_mode 7 13 0, lexer_mode 7 13 0,
    lexer_mode 7 13 0, lexer_mode 7 11 0, lexer_mode 7 13 0, lexer_mode 7 13 0, lexer_mode 7 13 0,
    lexer_mode 7 13 0, lexer_mode 7 13 0, lexer_mode 7 13 0, lexer_mode 7 13 0, lexer_mode 7 13 0,
    lexer_mode 7 13 0, lexer_mode 7 13 0, lexer_mode 7 13 0, lexer_mode 7 13 0, lexer_mode 7 13 0,
    lexer_mode 7 13 0, lexer_mode 7 13 0, lexer_mode 7 13 0, lexer_mode 7 13 0, lexer_mode 7 13 0,
    lexer_mode 7 11 0, lexer_mode 7 13 0, lexer_mode 7 11 0, lexer_mode 7 13 0, lexer_mode 7 13 0,
    lexer_mode 7 13 0, lexer_mode 7 11 0, lexer_mode 7 11 0, lexer_mode 7 13 0, lexer_mode 7 11 0,
    lexer_mode 7 11 0, lexer_mode 7 11 0, lexer_mode 7 11 0, lexer_mode 7 11 0, lexer_mode 7 11 0,
    lexer_mode 7 11 0, lexer_mode 7 11 0, lexer_mode 7 11 0, lexer_mode 7 11 0, lexer_mode 7 11 0,
    lexer_mode 7 11 0, lexer_mode 7 11 0, lexer_mode 7 11 0, lexer_mode 7 11 0, lexer_mode 7 15 0,
    lexer_mode 7 11 0, lexer_mode 7 11 0, lexer_mode 7 11 0, lexer_mode 7 11 0, lexer_mode 7 11 0,
    lexer_mode 7 11 0, lexer_mode 7 11 0, lexer_mode 7 11 0, lexer_mode 7 11 0, lexer_mode 7 11 0,
    lexer_mode 7 11 0, lexer_mode 7 11 0, lexer_mode 7 11 0, lexer_mode 7 11 0, lexer_mode 7 11 0,
    lexer_mode 7 11 0, lexer_mode 7 11 0, lexer_mode 7 11 0, lexer_mode 7 11 0, lexer_mode 7 11 0,
    lexer_mode 7 11 0, lexer_mode 7 13 0, lexer_mode 7 13 0, lexer_mode 7 13 0, lexer_mode 7 13 0,
    lexer_mode 7 13 0, lexer_mode 7 13 0, lexer_mode 7 13 0, lexer_mode 7 13 0, lexer_mode 7 13 0,
    lexer_mode 7 13 0, lexer_mode 7 13 0, lexer_mode 7 13 0, lexer_mode 7 13 0, lexer_mode 7 13 0,
    lexer_mode 7 12 0, lexer_mode 7 11 0, lexer_mode 7 11 0, lexer_mode 7 12 0, lexer_mode 7 11 0,
    lexer_mode 7 12 0, lexer_mode 7 11 0, lexer_mode 7 11 0, lexer_mode 7 12 0, lexer_mode 7 11 0,
    lexer_mode 7 11 0, lexer_mode 7 11 0, lexer_mode 7 11 0, lexer_mode 7 11 0, lexer_mode 7 11 0,
    lexer_mode 7 11 0, lexer_mode 7 11 0, lexer_mode 7 11 0, lexer_mode 7 11 0, lexer_mode 7 11 0,
    lexer_mode 7 11 0, lexer_mode 7 14 0, lexer_mode 7 11 0, lexer_mode 7 14 0, lexer_mode 7 14 0,
    lexer_mode 7 14 0, lexer_mode 7 14 0, lexer_mode 7 14 0, lexer_mode 7 14 0, lexer_mode 7 14 0,
    lexer_mode 7 14 0, lexer_mode 7 14 0, lexer_mode 7 14 0, lexer_mode 7 14 0, lexer_mode 7 14 0,
    lexer_mode 7 14 0, lexer_mode 7 14 0, lexer_mode 7 14 0, lexer_mode 7 14 0, lexer_mode 7 14 0,
    lexer_mode 7 14 0, lexer_mode 7 14 0, lexer_mode 7 11 0, lexer_mode 7 14 0, lexer_mode 7 14 0,
    lexer_mode 7 14 0, lexer_mode 7 14 0, lexer_mode 7 14 0, lexer_mode 7 14 0, lexer_mode 7 14 0,
    lexer_mode 7 11 0, lexer_mode 7 14 0, lexer_mode 7 14 0, lexer_mode 7 14 0, lexer_mode 7 14 0,
    lexer_mode 7 14 0, lexer_mode 7 14 0, lexer_mode 7 14 0, lexer_mode 7 14 0, lexer_mode 7 14 0]"

definition ts_lex_modes_63 :: "TSLexerMode list" where "ts_lex_modes_63 = [
    lexer_mode 7 11 0, lexer_mode 7 14 0, lexer_mode 7 12 0, lexer_mode 7 12 0, lexer_mode 7 12 0,
    lexer_mode 53 16 32, lexer_mode 7 12 0, lexer_mode 7 12 0, lexer_mode 53 16 32,
    lexer_mode 7 12 0, lexer_mode 7 12 0, lexer_mode 7 12 0, lexer_mode 7 12 0, lexer_mode 7 12 0,
    lexer_mode 7 15 0, lexer_mode 7 12 0, lexer_mode 7 15 0, lexer_mode 7 15 0, lexer_mode 7 12 0,
    lexer_mode 53 16 32, lexer_mode 7 12 0, lexer_mode 53 16 32, lexer_mode 7 12 0,
    lexer_mode 7 12 0, lexer_mode 53 16 32, lexer_mode 7 12 0, lexer_mode 7 12 0,
    lexer_mode 7 12 0, lexer_mode 7 12 0, lexer_mode 53 16 1, lexer_mode 7 15 0, lexer_mode 7 12 0,
    lexer_mode 7 15 0, lexer_mode 7 12 0, lexer_mode 7 15 0, lexer_mode 7 12 0, lexer_mode 7 15 0,
    lexer_mode 7 11 0, lexer_mode 7 15 0, lexer_mode 7 11 0, lexer_mode 7 15 0,
    lexer_mode 53 16 32, lexer_mode 7 12 0, lexer_mode 7 12 0, lexer_mode 7 15 0,
    lexer_mode 7 15 0, lexer_mode 7 12 0, lexer_mode 7 11 0, lexer_mode 53 16 32,
    lexer_mode 7 12 0, lexer_mode 7 11 0, lexer_mode 7 11 0, lexer_mode 7 12 0, lexer_mode 7 12 0,
    lexer_mode 7 15 0, lexer_mode 7 12 0, lexer_mode 7 12 0, lexer_mode 7 11 0,
    lexer_mode 53 16 32, lexer_mode 7 11 0, lexer_mode 7 11 0, lexer_mode 7 11 0,
    lexer_mode 7 11 0, lexer_mode 7 11 0, lexer_mode 7 11 0, lexer_mode 7 11 0, lexer_mode 7 11 0,
    lexer_mode 7 11 0, lexer_mode 7 11 0, lexer_mode 7 11 0, lexer_mode 7 11 0, lexer_mode 7 11 0,
    lexer_mode 7 11 0, lexer_mode 7 11 0, lexer_mode 7 11 0, lexer_mode 7 11 0, lexer_mode 7 11 0,
    lexer_mode 7 12 0, lexer_mode 7 11 0, lexer_mode 7 11 0, lexer_mode 7 12 0, lexer_mode 7 11 0,
    lexer_mode 7 12 0, lexer_mode 7 11 0, lexer_mode 7 11 0, lexer_mode 7 11 0, lexer_mode 7 11 0,
    lexer_mode 7 11 0, lexer_mode 7 11 0, lexer_mode 7 11 0, lexer_mode 7 11 0, lexer_mode 7 11 0,
    lexer_mode 7 11 0, lexer_mode 7 12 0, lexer_mode 7 12 0, lexer_mode 7 12 0, lexer_mode 7 12 0,
    lexer_mode 7 15 0, lexer_mode 7 15 0, lexer_mode 53 16 32, lexer_mode 7 13 0,
    lexer_mode 7 12 0, lexer_mode 0 17 0, lexer_mode 7 12 0, lexer_mode 0 17 0, lexer_mode 0 17 0,
    lexer_mode 7 13 0, lexer_mode 0 17 0, lexer_mode 7 14 0, lexer_mode 7 12 0, lexer_mode 7 14 0,
    lexer_mode 0 17 0, lexer_mode 0 17 0, lexer_mode 7 13 0, lexer_mode 7 14 0, lexer_mode 7 14 0,
    lexer_mode 0 17 0, lexer_mode 7 13 0, lexer_mode 0 17 0, lexer_mode 0 17 0, lexer_mode 7 13 0,
    lexer_mode 7 11 0, lexer_mode 7 13 0, lexer_mode 7 14 0, lexer_mode 0 17 0, lexer_mode 7 14 0,
    lexer_mode 7 14 0, lexer_mode 7 13 0, lexer_mode 7 14 0, lexer_mode 7 13 0, lexer_mode 7 13 0,
    lexer_mode 7 14 0, lexer_mode 0 17 0, lexer_mode 0 17 0, lexer_mode 7 13 0, lexer_mode 7 12 0,
    lexer_mode 7 14 0, lexer_mode 7 14 0, lexer_mode 7 14 0, lexer_mode 7 14 0, lexer_mode 0 17 0,
    lexer_mode 7 13 0, lexer_mode 7 12 0, lexer_mode 7 12 0, lexer_mode 7 14 0, lexer_mode 7 14 0,
    lexer_mode 7 13 0, lexer_mode 7 13 0, lexer_mode 0 17 0, lexer_mode 7 12 0]"

definition ts_lex_modes_64 :: "TSLexerMode list" where "ts_lex_modes_64 = [
    lexer_mode 0 17 0, lexer_mode 7 14 0, lexer_mode 7 14 0, lexer_mode 0 17 0, lexer_mode 0 17 0,
    lexer_mode 10 13 1, lexer_mode 0 17 0, lexer_mode 7 12 0, lexer_mode 7 14 0, lexer_mode 0 17 0,
    lexer_mode 0 17 0, lexer_mode 7 12 0, lexer_mode 0 17 0, lexer_mode 7 12 0, lexer_mode 7 13 0,
    lexer_mode 7 13 0, lexer_mode 7 12 0, lexer_mode 7 14 0, lexer_mode 7 14 0, lexer_mode 7 14 0,
    lexer_mode 7 12 0, lexer_mode 0 17 0, lexer_mode 7 14 0, lexer_mode 7 11 0, lexer_mode 7 12 0,
    lexer_mode 7 14 0, lexer_mode 7 14 0, lexer_mode 7 12 0, lexer_mode 7 14 0, lexer_mode 0 17 0,
    lexer_mode 7 12 0, lexer_mode 7 12 0, lexer_mode 7 14 0, lexer_mode 7 11 0, lexer_mode 7 12 0,
    lexer_mode 7 12 0, lexer_mode 7 13 0, lexer_mode 7 12 0, lexer_mode 7 12 0, lexer_mode 7 13 0,
    lexer_mode 7 13 0, lexer_mode 7 15 0, lexer_mode 7 15 0, lexer_mode 7 14 0, lexer_mode 7 15 0,
    lexer_mode 7 15 0, lexer_mode 7 15 0, lexer_mode 7 15 0, lexer_mode 7 11 0, lexer_mode 7 12 0,
    lexer_mode 7 12 0, lexer_mode 7 15 0, lexer_mode 7 13 0, lexer_mode 7 13 0, lexer_mode 9 11 1,
    lexer_mode 7 15 0, lexer_mode 7 13 0, lexer_mode 7 12 0, lexer_mode 7 13 0, lexer_mode 7 12 0,
    lexer_mode 9 13 1, lexer_mode 7 12 0, lexer_mode 7 14 0, lexer_mode 7 15 0, lexer_mode 9 11 1,
    lexer_mode 7 12 0, lexer_mode 7 15 0, lexer_mode 7 15 0, lexer_mode 7 12 0, lexer_mode 9 11 1,
    lexer_mode 7 15 0, lexer_mode 7 12 0, lexer_mode 7 13 0, lexer_mode 7 15 0, lexer_mode 7 15 0,
    lexer_mode 7 12 0, lexer_mode 7 15 0, lexer_mode 7 13 0, lexer_mode 7 12 0, lexer_mode 7 15 0,
    lexer_mode 7 12 0, lexer_mode 7 12 0, lexer_mode 7 15 0, lexer_mode 7 15 0, lexer_mode 7 15 0,
    lexer_mode 7 13 0, lexer_mode 7 15 0, lexer_mode 7 15 0, lexer_mode 7 15 0, lexer_mode 7 12 0,
    lexer_mode 7 12 0, lexer_mode 54 18 0, lexer_mode 7 15 0, lexer_mode 9 14 1, lexer_mode 7 11 0,
    lexer_mode 7 12 0, lexer_mode 7 12 0, lexer_mode 7 12 0, lexer_mode 7 14 0, lexer_mode 7 12 0,
    lexer_mode 7 11 0, lexer_mode 7 12 0, lexer_mode 7 12 0, lexer_mode 7 12 0, lexer_mode 7 11 0,
    lexer_mode 7 15 0, lexer_mode 7 12 0, lexer_mode 7 12 0, lexer_mode 7 12 0, lexer_mode 7 12 0,
    lexer_mode 7 12 0, lexer_mode 7 12 0, lexer_mode 54 18 0, lexer_mode 7 14 0, lexer_mode 7 12 0,
    lexer_mode 7 14 0, lexer_mode 7 14 0, lexer_mode 7 12 0, lexer_mode 7 12 0, lexer_mode 7 11 0,
    lexer_mode 7 12 0, lexer_mode 7 14 0, lexer_mode 7 14 0, lexer_mode 9 14 1, lexer_mode 54 18 0,
    lexer_mode 7 12 0, lexer_mode 9 13 1, lexer_mode 9 13 1, lexer_mode 9 13 1, lexer_mode 7 15 0,
    lexer_mode 7 12 0, lexer_mode 7 15 0, lexer_mode 7 12 0, lexer_mode 7 13 0, lexer_mode 7 14 0,
    lexer_mode 7 12 0, lexer_mode 7 12 0, lexer_mode 7 11 0, lexer_mode 7 15 0, lexer_mode 7 14 0,
    lexer_mode 7 11 0, lexer_mode 7 12 0, lexer_mode 7 12 0, lexer_mode 7 12 0, lexer_mode 7 14 0,
    lexer_mode 7 11 0, lexer_mode 7 11 0, lexer_mode 7 11 0, lexer_mode 7 12 0, lexer_mode 7 14 0]"

definition ts_lex_modes_65 :: "TSLexerMode list" where "ts_lex_modes_65 = [
    lexer_mode 7 12 0, lexer_mode 7 12 0, lexer_mode 7 14 0, lexer_mode 7 11 0, lexer_mode 7 12 0,
    lexer_mode 7 12 0, lexer_mode 9 14 1, lexer_mode 7 12 0, lexer_mode 54 18 0, lexer_mode 7 12 0,
    lexer_mode 7 12 0, lexer_mode 7 14 0, lexer_mode 7 14 0, lexer_mode 7 12 0, lexer_mode 7 12 0,
    lexer_mode 7 12 0, lexer_mode 0 17 0, lexer_mode 7 2 0, lexer_mode 7 12 0, lexer_mode 0 17 0,
    lexer_mode 7 12 0, lexer_mode 7 12 0, lexer_mode 7 11 0, lexer_mode 7 15 0, lexer_mode 7 12 0,
    lexer_mode 7 11 0, lexer_mode 7 12 0, lexer_mode 7 13 0, lexer_mode 7 12 0, lexer_mode 7 15 0,
    lexer_mode 7 12 0, lexer_mode 7 12 0, lexer_mode 7 12 0, lexer_mode 7 12 0, lexer_mode 7 12 0,
    lexer_mode 7 13 0, lexer_mode 7 12 0, lexer_mode 7 12 0, lexer_mode 7 12 0, lexer_mode 7 12 0,
    lexer_mode 7 15 0, lexer_mode 7 12 0, lexer_mode 7 12 0, lexer_mode 7 11 0, lexer_mode 7 6 0,
    lexer_mode 7 11 0, lexer_mode 7 11 0, lexer_mode 7 11 0, lexer_mode 7 14 0, lexer_mode 7 14 0,
    lexer_mode 7 12 0, lexer_mode 7 13 0, lexer_mode 7 13 0, lexer_mode 7 11 0, lexer_mode 7 12 0,
    lexer_mode 7 14 0, lexer_mode 7 12 0, lexer_mode 7 12 0, lexer_mode 7 12 0, lexer_mode 7 12 0,
    lexer_mode 7 11 0, lexer_mode 7 12 0, lexer_mode 7 12 0, lexer_mode 7 14 0, lexer_mode 7 14 0,
    lexer_mode 7 12 0, lexer_mode 7 13 0, lexer_mode 7 14 0, lexer_mode 7 13 0, lexer_mode 7 12 0,
    lexer_mode 7 13 0, lexer_mode 7 12 0, lexer_mode 7 12 0, lexer_mode 7 12 0, lexer_mode 7 13 0,
    lexer_mode 7 11 0, lexer_mode 7 12 0, lexer_mode 7 14 0, lexer_mode 7 12 0, lexer_mode 7 12 0,
    lexer_mode 7 12 0, lexer_mode 7 12 0, lexer_mode 7 12 0, lexer_mode 7 15 0, lexer_mode 7 12 0,
    lexer_mode 7 12 0, lexer_mode 7 12 0, lexer_mode 7 12 0, lexer_mode 7 12 0, lexer_mode 7 12 0,
    lexer_mode 7 11 0, lexer_mode 7 11 0, lexer_mode 7 14 0, lexer_mode 7 11 0, lexer_mode 7 12 0,
    lexer_mode 7 15 0, lexer_mode 7 11 0, lexer_mode 7 12 0, lexer_mode 7 14 0, lexer_mode 7 12 0,
    lexer_mode 7 11 0, lexer_mode 7 11 0, lexer_mode 7 14 0, lexer_mode 7 12 0, lexer_mode 7 12 0,
    lexer_mode 7 12 0, lexer_mode 7 14 0, lexer_mode 7 14 0, lexer_mode 7 12 0, lexer_mode 9 13 1,
    lexer_mode 7 11 0, lexer_mode 7 14 0, lexer_mode 7 14 0, lexer_mode 7 11 0, lexer_mode 7 14 0,
    lexer_mode 7 12 0, lexer_mode 7 13 0, lexer_mode 7 12 0, lexer_mode 7 13 0, lexer_mode 7 14 0,
    lexer_mode 7 14 0, lexer_mode 7 12 0, lexer_mode 7 11 0, lexer_mode 7 11 0, lexer_mode 7 11 0,
    lexer_mode 7 14 0, lexer_mode 7 13 0, lexer_mode 7 13 0, lexer_mode 7 13 0, lexer_mode 7 11 0,
    lexer_mode 7 13 0, lexer_mode 7 12 0, lexer_mode 7 12 0, lexer_mode 7 11 0, lexer_mode 7 14 0,
    lexer_mode 7 14 0, lexer_mode 7 12 0, lexer_mode 7 12 0, lexer_mode 7 13 0, lexer_mode 7 12 0,
    lexer_mode 7 12 0, lexer_mode 7 7 0, lexer_mode 7 13 0, lexer_mode 7 14 0, lexer_mode 7 12 0,
    lexer_mode 7 11 0, lexer_mode 7 12 0, lexer_mode 7 13 0, lexer_mode 7 12 0, lexer_mode 7 13 0]"

definition ts_lex_modes_66 :: "TSLexerMode list" where "ts_lex_modes_66 = [
    lexer_mode 7 12 0, lexer_mode 7 11 0, lexer_mode 7 12 0, lexer_mode 7 12 0, lexer_mode 7 12 0,
    lexer_mode 7 11 0, lexer_mode 7 12 0, lexer_mode 7 12 0, lexer_mode 7 13 0, lexer_mode 7 11 0,
    lexer_mode 7 14 0, lexer_mode 7 15 0, lexer_mode 7 11 0, lexer_mode 7 12 0, lexer_mode 7 12 0,
    lexer_mode 7 12 0, lexer_mode 7 12 0, lexer_mode 7 11 0, lexer_mode 7 14 0, lexer_mode 7 12 0,
    lexer_mode 7 14 0, lexer_mode 7 13 0, lexer_mode 7 11 0, lexer_mode 7 12 0, lexer_mode 7 12 0,
    lexer_mode 7 14 0, lexer_mode 7 12 0, lexer_mode 7 12 0, lexer_mode 7 14 0, lexer_mode 7 12 0,
    lexer_mode 7 12 0, lexer_mode 7 11 0, lexer_mode 7 12 0, lexer_mode 7 12 0, lexer_mode 7 15 0,
    lexer_mode 7 12 0, lexer_mode 7 14 0, lexer_mode 7 12 0, lexer_mode 7 14 0, lexer_mode 7 12 0,
    lexer_mode 7 14 0, lexer_mode 7 12 0, lexer_mode 7 14 0, lexer_mode 7 13 0, lexer_mode 7 12 0,
    lexer_mode 7 11 0, lexer_mode 7 12 0, lexer_mode 7 12 0, lexer_mode 7 14 0, lexer_mode 7 12 0,
    lexer_mode 7 12 0, lexer_mode 7 12 0, lexer_mode 7 12 0, lexer_mode 7 12 0, lexer_mode 7 12 0,
    lexer_mode 7 12 0, lexer_mode 7 12 0, lexer_mode 7 13 0, lexer_mode 7 12 0, lexer_mode 7 12 0,
    lexer_mode 7 12 0, lexer_mode 7 14 0, lexer_mode 7 12 0, lexer_mode 7 12 0, lexer_mode 7 11 0,
    lexer_mode 7 13 0, lexer_mode 7 14 0, lexer_mode 7 13 0, lexer_mode 7 12 0, lexer_mode 7 13 0,
    lexer_mode 7 13 0, lexer_mode 7 11 0, lexer_mode 7 12 0, lexer_mode 7 12 0, lexer_mode 7 12 0,
    lexer_mode 7 12 0, lexer_mode 7 14 0, lexer_mode 7 14 0, lexer_mode 9 13 1, lexer_mode 7 13 0,
    lexer_mode 7 13 0, lexer_mode 7 13 0, lexer_mode 7 12 0, lexer_mode 7 15 0, lexer_mode 7 14 0,
    lexer_mode 7 12 0, lexer_mode 7 13 0, lexer_mode 7 15 0, lexer_mode 7 13 0, lexer_mode 7 12 0,
    lexer_mode 7 12 0, lexer_mode 7 15 0, lexer_mode 7 12 0, lexer_mode 7 12 0, lexer_mode 7 12 0,
    lexer_mode 7 15 0, lexer_mode 7 15 0, lexer_mode 7 12 0, lexer_mode 7 14 0, lexer_mode 7 12 0,
    lexer_mode 7 12 0, lexer_mode 7 12 0, lexer_mode 7 13 0, lexer_mode 7 12 0, lexer_mode 7 12 0,
    lexer_mode 7 12 0, lexer_mode 7 12 0, lexer_mode 7 12 0, lexer_mode 7 14 0, lexer_mode 7 12 0,
    lexer_mode 7 12 0, lexer_mode 7 13 0, lexer_mode 7 8 0, lexer_mode 7 12 0, lexer_mode 7 15 0,
    lexer_mode 7 12 0, lexer_mode 7 14 0, lexer_mode 7 15 0, lexer_mode 7 13 0, lexer_mode 7 13 0,
    lexer_mode 7 12 0, lexer_mode 7 12 0, lexer_mode 7 12 0, lexer_mode 7 12 0, lexer_mode 7 12 0,
    lexer_mode 7 12 0, lexer_mode 7 14 0, lexer_mode 7 11 0, lexer_mode 7 14 0, lexer_mode 7 12 0,
    lexer_mode 7 13 0, lexer_mode 7 12 0, lexer_mode 7 14 0, lexer_mode 7 12 0, lexer_mode 7 12 0,
    lexer_mode 7 13 0, lexer_mode 7 12 0, lexer_mode 7 13 0, lexer_mode 7 11 0, lexer_mode 7 12 0,
    lexer_mode 7 12 0, lexer_mode 7 14 0, lexer_mode 7 12 0, lexer_mode 7 12 0, lexer_mode 7 12 0,
    lexer_mode 7 12 0, lexer_mode 7 13 0, lexer_mode 7 12 0, lexer_mode 7 11 0, lexer_mode 7 12 0]"

definition ts_lex_modes_67 :: "TSLexerMode list" where "ts_lex_modes_67 = [
    lexer_mode 7 13 0, lexer_mode 7 12 0, lexer_mode 7 14 0, lexer_mode 7 14 0, lexer_mode 7 12 0,
    lexer_mode 7 14 0, lexer_mode 7 12 0, lexer_mode 7 12 0, lexer_mode 7 12 0, lexer_mode 7 12 0,
    lexer_mode 7 14 0, lexer_mode 7 14 0, lexer_mode 7 14 0, lexer_mode 7 12 0, lexer_mode 7 14 0,
    lexer_mode 7 15 0, lexer_mode 9 13 1, lexer_mode 7 12 0, lexer_mode 7 12 0, lexer_mode 7 12 0,
    lexer_mode 7 12 0, lexer_mode 7 14 0, lexer_mode 7 13 0, lexer_mode 7 14 0, lexer_mode 7 12 0,
    lexer_mode 7 12 0, lexer_mode 7 12 0, lexer_mode 7 13 0, lexer_mode 7 13 0, lexer_mode 7 12 0,
    lexer_mode 7 11 0, lexer_mode 7 12 0, lexer_mode 7 12 0, lexer_mode 7 12 0, lexer_mode 7 13 0,
    lexer_mode 7 12 0, lexer_mode 7 14 0, lexer_mode 7 12 0, lexer_mode 7 11 0, lexer_mode 7 13 0,
    lexer_mode 7 12 0, lexer_mode 7 12 0, lexer_mode 7 13 0, lexer_mode 7 11 0, lexer_mode 7 11 0,
    lexer_mode 7 13 0, lexer_mode 7 14 0, lexer_mode 7 13 0, lexer_mode 7 11 0, lexer_mode 7 11 0,
    lexer_mode 7 13 0, lexer_mode 7 14 0, lexer_mode 7 11 0, lexer_mode 7 13 0, lexer_mode 7 11 0,
    lexer_mode 7 14 0, lexer_mode 7 13 0, lexer_mode 7 14 0, lexer_mode 7 11 0, lexer_mode 7 13 0,
    lexer_mode 7 13 0, lexer_mode 7 11 0, lexer_mode 7 14 0, lexer_mode 7 13 0, lexer_mode 7 13 0,
    lexer_mode 7 13 0, lexer_mode 7 14 0, lexer_mode 7 12 0, lexer_mode 7 12 0, lexer_mode 7 12 0,
    lexer_mode 7 13 0, lexer_mode 7 13 0, lexer_mode 7 13 0, lexer_mode 7 13 0, lexer_mode 7 13 0,
    lexer_mode 7 13 0, lexer_mode 7 13 0, lexer_mode 7 13 0, lexer_mode 53 15 0, lexer_mode 7 14 0,
    lexer_mode 7 13 0, lexer_mode 7 13 0, lexer_mode 7 13 0, lexer_mode 7 13 0, lexer_mode 7 13 0,
    lexer_mode 7 13 0, lexer_mode 7 13 0, lexer_mode 7 12 0, lexer_mode 7 14 0, lexer_mode 7 12 0,
    lexer_mode 53 13 33, lexer_mode 7 13 0, lexer_mode 7 14 0, lexer_mode 7 13 0,
    lexer_mode 7 14 0, lexer_mode 7 13 0, lexer_mode 7 13 0, lexer_mode 7 11 0, lexer_mode 7 13 0,
    lexer_mode 7 13 0, lexer_mode 7 13 0, lexer_mode 7 13 0, lexer_mode 7 13 0, lexer_mode 7 13 0,
    lexer_mode 7 13 0, lexer_mode 7 13 0, lexer_mode 7 13 0, lexer_mode 7 13 0, lexer_mode 7 13 0,
    lexer_mode 7 13 0, lexer_mode 53 13 33, lexer_mode 7 14 0, lexer_mode 7 13 0,
    lexer_mode 7 13 0, lexer_mode 7 13 0, lexer_mode 7 14 0, lexer_mode 7 13 0, lexer_mode 7 13 0,
    lexer_mode 7 13 0, lexer_mode 7 13 0, lexer_mode 7 13 0, lexer_mode 7 13 0, lexer_mode 7 13 0,
    lexer_mode 7 13 0, lexer_mode 7 13 0, lexer_mode 7 13 0, lexer_mode 7 13 0, lexer_mode 7 13 0,
    lexer_mode 7 11 0, lexer_mode 53 15 0, lexer_mode 7 14 0, lexer_mode 7 11 0, lexer_mode 7 13 0,
    lexer_mode 7 13 0, lexer_mode 7 13 0, lexer_mode 7 13 0, lexer_mode 7 13 0, lexer_mode 7 11 0,
    lexer_mode 7 13 0, lexer_mode 7 11 0, lexer_mode 7 13 0, lexer_mode 7 13 0, lexer_mode 7 13 0,
    lexer_mode 7 13 0, lexer_mode 7 13 0, lexer_mode 7 13 0, lexer_mode 7 13 0, lexer_mode 7 13 0,
    lexer_mode 7 13 0, lexer_mode 7 13 0]"

definition ts_lex_modes_68 :: "TSLexerMode list" where "ts_lex_modes_68 = [
    lexer_mode 7 13 0, lexer_mode 7 15 0, lexer_mode 7 13 0, lexer_mode 7 13 0, lexer_mode 7 13 0,
    lexer_mode 7 13 0, lexer_mode 7 13 0, lexer_mode 7 13 0, lexer_mode 7 13 0, lexer_mode 7 13 0,
    lexer_mode 7 13 0, lexer_mode 7 13 0, lexer_mode 7 13 0, lexer_mode 7 13 0, lexer_mode 7 13 0,
    lexer_mode 7 13 0, lexer_mode 7 13 0, lexer_mode 7 13 0, lexer_mode 7 13 0, lexer_mode 7 12 0,
    lexer_mode 7 13 0, lexer_mode 7 14 0, lexer_mode 7 13 0, lexer_mode 7 13 0, lexer_mode 53 15 0,
    lexer_mode 7 11 0, lexer_mode 7 13 0, lexer_mode 7 13 0, lexer_mode 7 13 0, lexer_mode 7 11 0,
    lexer_mode 7 11 0, lexer_mode 7 14 0, lexer_mode 7 11 0, lexer_mode 7 14 0, lexer_mode 7 13 0,
    lexer_mode 7 13 0, lexer_mode 7 13 0, lexer_mode 7 13 0, lexer_mode 7 13 0, lexer_mode 7 13 0,
    lexer_mode 7 13 0, lexer_mode 7 13 0, lexer_mode 7 13 0, lexer_mode 7 13 0, lexer_mode 7 13 0,
    lexer_mode 7 13 0, lexer_mode 7 13 0, lexer_mode 7 13 0, lexer_mode 7 13 0, lexer_mode 7 13 0,
    lexer_mode 7 13 0, lexer_mode 7 13 0, lexer_mode 7 11 0, lexer_mode 7 11 0, lexer_mode 7 13 0,
    lexer_mode 7 13 0, lexer_mode 7 14 0, lexer_mode 7 13 0, lexer_mode 7 15 0, lexer_mode 7 13 0,
    lexer_mode 7 14 0, lexer_mode 9 11 1, lexer_mode 7 13 0, lexer_mode 7 13 0, lexer_mode 7 14 0,
    lexer_mode 7 14 0, lexer_mode 7 11 0, lexer_mode 7 13 0, lexer_mode 7 13 0, lexer_mode 7 13 0,
    lexer_mode 7 13 0, lexer_mode 7 13 0, lexer_mode 7 13 0, lexer_mode 7 13 0, lexer_mode 7 13 0,
    lexer_mode 7 13 0, lexer_mode 7 13 0, lexer_mode 7 13 0, lexer_mode 7 13 0, lexer_mode 7 13 0,
    lexer_mode 7 12 0, lexer_mode 7 13 0, lexer_mode 7 13 0, lexer_mode 7 11 0, lexer_mode 7 14 0,
    lexer_mode 7 13 0, lexer_mode 7 13 0, lexer_mode 7 14 0, lexer_mode 7 11 0, lexer_mode 7 12 0,
    lexer_mode 7 13 0, lexer_mode 53 15 0, lexer_mode 7 11 0, lexer_mode 7 13 0, lexer_mode 7 13 0,
    lexer_mode 7 13 0, lexer_mode 7 13 0, lexer_mode 7 13 0, lexer_mode 7 13 0, lexer_mode 7 13 0,
    lexer_mode 7 13 0, lexer_mode 7 13 0, lexer_mode 7 13 0, lexer_mode 7 13 0, lexer_mode 7 13 0,
    lexer_mode 7 13 0, lexer_mode 7 13 0, lexer_mode 7 13 0, lexer_mode 7 13 0, lexer_mode 7 15 0,
    lexer_mode 7 13 0, lexer_mode 7 11 0, lexer_mode 7 15 0, lexer_mode 7 12 0, lexer_mode 7 14 0,
    lexer_mode 7 14 0, lexer_mode 7 11 0, lexer_mode 7 14 0, lexer_mode 7 11 0, lexer_mode 7 14 0,
    lexer_mode 4 13 1, lexer_mode 7 12 0, lexer_mode 7 14 0, lexer_mode 7 14 0, lexer_mode 7 13 0,
    lexer_mode 7 13 0, lexer_mode 7 13 0, lexer_mode 7 13 0, lexer_mode 7 13 0, lexer_mode 7 13 0,
    lexer_mode 7 13 0, lexer_mode 7 13 0, lexer_mode 7 13 0, lexer_mode 7 13 0, lexer_mode 7 13 0,
    lexer_mode 7 13 0, lexer_mode 7 13 0, lexer_mode 7 13 0, lexer_mode 7 13 0, lexer_mode 7 13 0,
    lexer_mode 7 13 0, lexer_mode 7 13 0, lexer_mode 7 13 0, lexer_mode 7 13 0, lexer_mode 7 13 0,
    lexer_mode 7 13 0, lexer_mode 7 13 0, lexer_mode 7 13 0, lexer_mode 7 13 0, lexer_mode 7 13 0]"

definition ts_lex_modes_69 :: "TSLexerMode list" where "ts_lex_modes_69 = [
    lexer_mode 7 14 0, lexer_mode 7 13 0, lexer_mode 7 13 0, lexer_mode 7 14 0, lexer_mode 7 14 0,
    lexer_mode 7 13 0, lexer_mode 7 13 0, lexer_mode 7 13 0, lexer_mode 7 13 0, lexer_mode 7 13 0,
    lexer_mode 7 13 0, lexer_mode 7 13 0, lexer_mode 7 13 0, lexer_mode 7 13 0, lexer_mode 7 13 0,
    lexer_mode 7 13 0, lexer_mode 7 13 0, lexer_mode 7 13 0, lexer_mode 7 13 0, lexer_mode 7 13 0,
    lexer_mode 7 13 0, lexer_mode 7 13 0, lexer_mode 7 13 0, lexer_mode 7 13 0, lexer_mode 7 13 0,
    lexer_mode 7 13 0, lexer_mode 7 13 0, lexer_mode 7 13 0, lexer_mode 7 13 0, lexer_mode 7 13 0,
    lexer_mode 7 13 0, lexer_mode 7 13 0, lexer_mode 7 15 0, lexer_mode 7 11 0, lexer_mode 7 12 0,
    lexer_mode 7 13 0, lexer_mode 7 13 0, lexer_mode 7 13 0, lexer_mode 7 13 0, lexer_mode 7 13 0,
    lexer_mode 7 13 0, lexer_mode 7 13 0, lexer_mode 7 13 0, lexer_mode 7 13 0, lexer_mode 7 13 0,
    lexer_mode 7 13 0, lexer_mode 7 13 0, lexer_mode 7 13 0, lexer_mode 7 13 0, lexer_mode 7 13 0,
    lexer_mode 7 13 0, lexer_mode 7 13 0, lexer_mode 7 13 0, lexer_mode 7 13 0, lexer_mode 7 14 0,
    lexer_mode 7 13 0, lexer_mode 7 13 0, lexer_mode 7 13 0, lexer_mode 7 13 0, lexer_mode 7 13 0,
    lexer_mode 7 13 0, lexer_mode 7 13 0, lexer_mode 7 13 0, lexer_mode 7 13 0, lexer_mode 7 14 0,
    lexer_mode 7 12 0, lexer_mode 7 14 0, lexer_mode 7 14 0, lexer_mode 7 13 0, lexer_mode 7 14 0,
    lexer_mode 7 13 0, lexer_mode 7 14 0, lexer_mode 7 13 0, lexer_mode 7 12 0, lexer_mode 7 14 0,
    lexer_mode 7 14 0, lexer_mode 7 14 0, lexer_mode 7 14 0, lexer_mode 7 12 0,
    lexer_mode 53 13 33, lexer_mode 7 14 0, lexer_mode 7 13 0, lexer_mode 7 11 0,
    lexer_mode 7 14 0, lexer_mode 7 13 0, lexer_mode 7 15 0, lexer_mode 7 12 0, lexer_mode 7 14 0,
    lexer_mode 7 14 0, lexer_mode 7 13 0, lexer_mode 7 14 0, lexer_mode 7 14 0, lexer_mode 7 14 0,
    lexer_mode 7 14 0, lexer_mode 7 11 0, lexer_mode 7 14 0, lexer_mode 7 14 0, lexer_mode 7 14 0,
    lexer_mode 7 14 0, lexer_mode 7 14 0, lexer_mode 7 14 0, lexer_mode 7 13 0, lexer_mode 7 11 0,
    lexer_mode 7 15 0, lexer_mode 7 15 0, lexer_mode 7 14 0, lexer_mode 7 13 0, lexer_mode 7 13 0,
    lexer_mode 7 13 0, lexer_mode 7 14 0, lexer_mode 7 13 0, lexer_mode 7 13 0, lexer_mode 7 13 0,
    lexer_mode 7 14 0, lexer_mode 7 14 0, lexer_mode 7 13 0, lexer_mode 7 13 0, lexer_mode 7 12 0,
    lexer_mode 7 11 0, lexer_mode 0 17 0, lexer_mode 53 13 33, lexer_mode 7 11 0,
    lexer_mode 7 11 0, lexer_mode 0 17 0, lexer_mode 0 17 0, lexer_mode 7 11 0, lexer_mode 7 11 0,
    lexer_mode 7 11 0, lexer_mode 7 14 0, lexer_mode 7 11 0, lexer_mode 7 11 0, lexer_mode 7 14 0,
    lexer_mode 7 14 0, lexer_mode 7 14 0, lexer_mode 7 13 0, lexer_mode 7 12 0, lexer_mode 7 14 0,
    lexer_mode 7 14 0, lexer_mode 7 13 0, lexer_mode 7 15 0, lexer_mode 7 15 0, lexer_mode 7 12 0,
    lexer_mode 7 15 0, lexer_mode 7 14 0, lexer_mode 7 14 0, lexer_mode 7 12 0, lexer_mode 7 14 0,
    lexer_mode 7 13 0, lexer_mode 7 14 0, lexer_mode 7 14 0]"

definition ts_lex_modes_70 :: "TSLexerMode list" where "ts_lex_modes_70 = [
    lexer_mode 7 14 0, lexer_mode 7 14 0, lexer_mode 7 14 0, lexer_mode 7 14 0, lexer_mode 7 14 0,
    lexer_mode 7 14 0, lexer_mode 7 14 0, lexer_mode 7 14 0, lexer_mode 7 14 0, lexer_mode 7 14 0,
    lexer_mode 7 14 0, lexer_mode 7 14 0, lexer_mode 7 14 0, lexer_mode 7 14 0, lexer_mode 7 13 0,
    lexer_mode 7 14 0, lexer_mode 7 14 0, lexer_mode 7 14 0, lexer_mode 7 14 0, lexer_mode 7 14 0,
    lexer_mode 7 14 0, lexer_mode 7 13 0, lexer_mode 7 14 0, lexer_mode 7 14 0, lexer_mode 7 14 0,
    lexer_mode 7 13 0, lexer_mode 7 14 0, lexer_mode 7 14 0, lexer_mode 7 14 0, lexer_mode 7 14 0,
    lexer_mode 7 14 0, lexer_mode 7 12 0, lexer_mode 7 14 0, lexer_mode 7 14 0, lexer_mode 7 13 0,
    lexer_mode 7 14 0, lexer_mode 7 13 0, lexer_mode 7 13 0, lexer_mode 7 14 0, lexer_mode 7 14 0,
    lexer_mode 7 14 0, lexer_mode 7 14 0, lexer_mode 7 14 0, lexer_mode 7 14 0, lexer_mode 0 17 0,
    lexer_mode 7 14 0, lexer_mode 7 11 0, lexer_mode 7 14 0, lexer_mode 7 14 0, lexer_mode 7 14 0,
    lexer_mode 7 14 0, lexer_mode 7 14 0, lexer_mode 7 11 0, lexer_mode 7 12 0, lexer_mode 7 13 0,
    lexer_mode 7 14 0, lexer_mode 7 13 0, lexer_mode 7 11 0, lexer_mode 7 14 0, lexer_mode 7 14 0,
    lexer_mode 7 14 0, lexer_mode 7 14 0, lexer_mode 7 13 0, lexer_mode 7 14 0, lexer_mode 7 14 0,
    lexer_mode 7 14 0, lexer_mode 7 13 0, lexer_mode 7 14 0, lexer_mode 7 14 0, lexer_mode 7 13 0,
    lexer_mode 7 14 0, lexer_mode 7 11 0, lexer_mode 7 14 0, lexer_mode 7 11 0, lexer_mode 7 14 0,
    lexer_mode 7 13 0, lexer_mode 7 14 0, lexer_mode 7 14 0, lexer_mode 7 13 0, lexer_mode 7 14 0,
    lexer_mode 7 13 0, lexer_mode 7 13 0, lexer_mode 7 14 0, lexer_mode 7 13 0, lexer_mode 7 13 0,
    lexer_mode 7 13 0, lexer_mode 7 14 0, lexer_mode 7 13 0, lexer_mode 7 13 0, lexer_mode 7 14 0,
    lexer_mode 7 12 0, lexer_mode 7 13 0, lexer_mode 7 14 0, lexer_mode 7 14 0, lexer_mode 7 14 0,
    lexer_mode 7 13 0, lexer_mode 7 14 0, lexer_mode 7 14 0, lexer_mode 7 14 0, lexer_mode 7 11 0,
    lexer_mode 7 14 0, lexer_mode 7 14 0, lexer_mode 7 13 0, lexer_mode 7 13 0, lexer_mode 7 14 0,
    lexer_mode 7 13 0, lexer_mode 7 13 0, lexer_mode 7 13 0, lexer_mode 7 13 0, lexer_mode 7 14 0,
    lexer_mode 7 13 0, lexer_mode 7 13 0, lexer_mode 7 13 0, lexer_mode 7 14 0, lexer_mode 7 13 0,
    lexer_mode 7 13 0, lexer_mode 7 14 0, lexer_mode 7 13 0, lexer_mode 7 14 0, lexer_mode 7 14 0,
    lexer_mode 7 15 0, lexer_mode 7 14 0, lexer_mode 7 13 0, lexer_mode 7 13 0, lexer_mode 7 14 0,
    lexer_mode 7 13 0, lexer_mode 7 13 0, lexer_mode 7 14 0, lexer_mode 7 14 0, lexer_mode 7 14 0,
    lexer_mode 7 14 0, lexer_mode 7 13 0, lexer_mode 7 14 0, lexer_mode 7 13 0, lexer_mode 7 14 0,
    lexer_mode 7 14 0, lexer_mode 7 11 0, lexer_mode 7 13 0, lexer_mode 7 14 0, lexer_mode 7 13 0,
    lexer_mode 7 13 0, lexer_mode 7 11 0, lexer_mode 7 13 0, lexer_mode 7 11 0, lexer_mode 7 11 0,
    lexer_mode 7 13 0, lexer_mode 7 13 0, lexer_mode 7 11 0, lexer_mode 7 11 0, lexer_mode 7 13 0]"

definition ts_lex_modes_71 :: "TSLexerMode list" where "ts_lex_modes_71 = [
    lexer_mode 7 11 0, lexer_mode 7 13 0, lexer_mode 7 11 0, lexer_mode 4 13 1, lexer_mode 7 13 0,
    lexer_mode 7 11 0, lexer_mode 7 11 0, lexer_mode 7 11 0, lexer_mode 7 11 0, lexer_mode 7 13 0,
    lexer_mode 7 13 0, lexer_mode 7 11 0, lexer_mode 7 13 0, lexer_mode 7 13 0, lexer_mode 7 11 0,
    lexer_mode 7 11 0, lexer_mode 0 17 0, lexer_mode 7 13 0, lexer_mode 7 11 0, lexer_mode 0 17 0,
    lexer_mode 7 13 0, lexer_mode 7 13 0, lexer_mode 7 13 0, lexer_mode 0 17 0, lexer_mode 7 13 0,
    lexer_mode 7 13 0, lexer_mode 7 13 0, lexer_mode 7 13 0, lexer_mode 7 14 0, lexer_mode 7 13 0,
    lexer_mode 7 12 0, lexer_mode 53 13 33, lexer_mode 7 13 0, lexer_mode 7 13 0,
    lexer_mode 7 11 0, lexer_mode 7 13 0, lexer_mode 7 13 0, lexer_mode 7 13 0, lexer_mode 7 13 0,
    lexer_mode 7 13 0, lexer_mode 7 15 0, lexer_mode 7 14 0, lexer_mode 7 11 0,
    lexer_mode 53 13 33, lexer_mode 7 13 0, lexer_mode 7 13 0, lexer_mode 7 11 0,
    lexer_mode 7 11 0, lexer_mode 7 13 0, lexer_mode 7 13 0, lexer_mode 7 13 0, lexer_mode 7 13 0,
    lexer_mode 7 12 0, lexer_mode 7 14 0, lexer_mode 7 14 0, lexer_mode 7 13 0, lexer_mode 7 14 0,
    lexer_mode 7 13 0, lexer_mode 7 13 0, lexer_mode 7 12 0, lexer_mode 7 13 0, lexer_mode 7 13 0,
    lexer_mode 7 13 0, lexer_mode 7 14 0, lexer_mode 7 13 0, lexer_mode 7 12 0, lexer_mode 7 13 0,
    lexer_mode 7 13 0, lexer_mode 7 12 0, lexer_mode 7 15 0, lexer_mode 7 13 0, lexer_mode 7 14 0,
    lexer_mode 7 14 0, lexer_mode 7 14 0, lexer_mode 7 14 0, lexer_mode 7 13 0, lexer_mode 7 14 0,
    lexer_mode 7 13 0, lexer_mode 7 13 0, lexer_mode 7 12 0, lexer_mode 7 13 0, lexer_mode 7 13 0,
    lexer_mode 7 13 0, lexer_mode 7 13 0, lexer_mode 7 13 0, lexer_mode 7 12 0, lexer_mode 7 15 0,
    lexer_mode 7 12 0, lexer_mode 7 13 0, lexer_mode 7 11 0, lexer_mode 7 11 0, lexer_mode 7 13 0,
    lexer_mode 7 11 0, lexer_mode 7 11 0, lexer_mode 7 11 0, lexer_mode 7 11 0, lexer_mode 7 11 0,
    lexer_mode 7 11 0, lexer_mode 7 11 0, lexer_mode 7 11 0, lexer_mode 7 11 0, lexer_mode 7 11 0,
    lexer_mode 7 12 0, lexer_mode 7 11 0, lexer_mode 7 11 0, lexer_mode 7 11 0, lexer_mode 7 11 0,
    lexer_mode 7 11 0, lexer_mode 7 11 0, lexer_mode 7 11 0, lexer_mode 7 11 0, lexer_mode 7 11 0,
    lexer_mode 7 12 0, lexer_mode 7 13 0, lexer_mode 7 11 0, lexer_mode 7 11 0, lexer_mode 7 11 0,
    lexer_mode 0 17 0, lexer_mode 7 13 0, lexer_mode 53 13 33, lexer_mode 7 11 0,
    lexer_mode 7 11 0, lexer_mode 7 14 0, lexer_mode 7 11 0, lexer_mode 7 11 0, lexer_mode 7 11 0,
    lexer_mode 7 11 0, lexer_mode 7 14 0, lexer_mode 7 11 0, lexer_mode 7 13 0, lexer_mode 7 13 0,
    lexer_mode 7 13 0, lexer_mode 7 14 0, lexer_mode 7 11 0, lexer_mode 7 11 0,
    lexer_mode 53 13 33, lexer_mode 7 15 0, lexer_mode 7 13 0, lexer_mode 7 12 0,
    lexer_mode 7 14 0, lexer_mode 7 13 0, lexer_mode 7 12 0, lexer_mode 7 14 0, lexer_mode 7 14 0,
    lexer_mode 7 13 0, lexer_mode 7 13 0, lexer_mode 7 15 0, lexer_mode 7 13 0, lexer_mode 7 13 0,
    lexer_mode 7 12 0]"

definition ts_lex_modes_72 :: "TSLexerMode list" where "ts_lex_modes_72 = [
    lexer_mode 7 13 0, lexer_mode 7 13 0, lexer_mode 7 13 0, lexer_mode 7 13 0, lexer_mode 7 13 0,
    lexer_mode 7 13 0, lexer_mode 7 13 0, lexer_mode 7 13 0, lexer_mode 7 13 0, lexer_mode 7 13 0,
    lexer_mode 7 13 0, lexer_mode 7 13 0, lexer_mode 7 13 0, lexer_mode 7 13 0, lexer_mode 7 13 0,
    lexer_mode 7 13 0, lexer_mode 7 13 0, lexer_mode 7 13 0, lexer_mode 7 13 0, lexer_mode 7 13 0,
    lexer_mode 7 13 0, lexer_mode 7 13 0, lexer_mode 7 13 0, lexer_mode 7 13 0, lexer_mode 7 14 0,
    lexer_mode 7 13 0, lexer_mode 7 13 0, lexer_mode 7 12 0, lexer_mode 7 13 0, lexer_mode 7 13 0,
    lexer_mode 7 13 0, lexer_mode 7 13 0, lexer_mode 7 13 0, lexer_mode 7 13 0, lexer_mode 7 13 0,
    lexer_mode 7 13 0, lexer_mode 7 13 0, lexer_mode 9 11 1, lexer_mode 7 13 0, lexer_mode 7 13 0,
    lexer_mode 7 13 0, lexer_mode 7 13 0, lexer_mode 7 11 0, lexer_mode 7 13 0, lexer_mode 7 13 0,
    lexer_mode 7 11 0, lexer_mode 7 13 0, lexer_mode 7 11 0, lexer_mode 7 11 0, lexer_mode 7 13 0,
    lexer_mode 7 13 0, lexer_mode 7 13 0, lexer_mode 7 11 0, lexer_mode 7 13 0, lexer_mode 7 13 0,
    lexer_mode 7 14 0, lexer_mode 7 11 0, lexer_mode 7 11 0, lexer_mode 7 11 0, lexer_mode 7 11 0,
    lexer_mode 7 15 0, lexer_mode 7 13 0, lexer_mode 7 11 0, lexer_mode 7 14 0, lexer_mode 7 13 0,
    lexer_mode 7 14 0, lexer_mode 7 11 0, lexer_mode 7 13 0, lexer_mode 7 13 0, lexer_mode 7 13 0,
    lexer_mode 7 13 0, lexer_mode 7 13 0, lexer_mode 7 11 0, lexer_mode 7 14 0, lexer_mode 7 13 0,
    lexer_mode 7 11 0, lexer_mode 7 13 0, lexer_mode 7 13 0, lexer_mode 7 11 0, lexer_mode 7 11 0,
    lexer_mode 7 13 0, lexer_mode 7 13 0, lexer_mode 7 11 0, lexer_mode 7 13 0, lexer_mode 7 13 0,
    lexer_mode 7 11 0, lexer_mode 7 14 0, lexer_mode 7 13 0, lexer_mode 7 14 0, lexer_mode 7 14 0,
    lexer_mode 7 13 0, lexer_mode 7 14 0, lexer_mode 7 13 0, lexer_mode 7 13 0, lexer_mode 7 13 0,
    lexer_mode 7 11 0, lexer_mode 53 13 33, lexer_mode 53 13 33, lexer_mode 7 14 0,
    lexer_mode 7 11 0, lexer_mode 7 14 0, lexer_mode 7 11 0, lexer_mode 7 14 0, lexer_mode 7 11 0,
    lexer_mode 7 14 0, lexer_mode 7 11 0, lexer_mode 7 11 0, lexer_mode 7 11 0, lexer_mode 7 11 0,
    lexer_mode 7 11 0, lexer_mode 7 13 0, lexer_mode 7 11 0, lexer_mode 7 13 0, lexer_mode 7 11 0,
    lexer_mode 7 13 0, lexer_mode 7 11 0, lexer_mode 7 11 0, lexer_mode 7 11 0, lexer_mode 7 11 0,
    lexer_mode 7 11 0, lexer_mode 7 11 0, lexer_mode 7 14 0, lexer_mode 7 14 0, lexer_mode 7 11 0,
    lexer_mode 7 14 0, lexer_mode 7 11 0, lexer_mode 7 14 0, lexer_mode 7 11 0, lexer_mode 7 11 0,
    lexer_mode 53 13 33, lexer_mode 53 13 33, lexer_mode 53 13 33, lexer_mode 53 13 33,
    lexer_mode 7 11 0, lexer_mode 7 13 0, lexer_mode 53 13 33, lexer_mode 7 11 0,
    lexer_mode 53 13 33, lexer_mode 7 14 0, lexer_mode 7 13 0, lexer_mode 7 14 0,
    lexer_mode 7 14 0, lexer_mode 7 14 0, lexer_mode 53 19 0, lexer_mode 7 13 0, lexer_mode 7 13 0,
    lexer_mode 7 13 0, lexer_mode 53 19 0, lexer_mode 7 13 0, lexer_mode 7 13 0]"

definition ts_lex_modes_73 :: "TSLexerMode list" where "ts_lex_modes_73 = [
    lexer_mode 7 13 0, lexer_mode 7 13 0, lexer_mode 7 13 0, lexer_mode 7 13 0, lexer_mode 7 14 0,
    lexer_mode 7 13 0, lexer_mode 53 15 0, lexer_mode 53 19 0, lexer_mode 7 13 0,
    lexer_mode 53 19 0, lexer_mode 7 13 0, lexer_mode 7 13 0, lexer_mode 7 13 0, lexer_mode 7 13 0,
    lexer_mode 7 13 0, lexer_mode 7 14 0, lexer_mode 7 13 0, lexer_mode 7 13 0, lexer_mode 7 13 0,
    lexer_mode 53 13 0, lexer_mode 7 14 0, lexer_mode 7 13 0, lexer_mode 53 13 0,
    lexer_mode 53 15 0, lexer_mode 4 13 1, lexer_mode 7 12 0, lexer_mode 7 14 0, lexer_mode 7 14 0,
    lexer_mode 7 14 0, lexer_mode 7 12 0, lexer_mode 7 13 0, lexer_mode 7 12 0, lexer_mode 53 19 0,
    lexer_mode 7 13 0, lexer_mode 7 12 0, lexer_mode 7 13 0, lexer_mode 7 13 0, lexer_mode 7 13 0,
    lexer_mode 7 12 0, lexer_mode 7 12 0, lexer_mode 7 13 0, lexer_mode 7 14 0, lexer_mode 7 12 0,
    lexer_mode 7 13 0, lexer_mode 7 12 0, lexer_mode 7 13 0, lexer_mode 7 13 0, lexer_mode 3 15 0,
    lexer_mode 7 13 0, lexer_mode 7 13 0, lexer_mode 7 13 0, lexer_mode 7 13 0, lexer_mode 7 12 0,
    lexer_mode 7 13 0, lexer_mode 7 13 0, lexer_mode 53 19 0, lexer_mode 7 14 0, lexer_mode 7 13 0,
    lexer_mode 7 14 0, lexer_mode 7 13 0, lexer_mode 7 13 0, lexer_mode 7 13 0, lexer_mode 7 13 0,
    lexer_mode 7 13 0, lexer_mode 7 13 0, lexer_mode 7 15 0, lexer_mode 7 15 0, lexer_mode 7 13 0,
    lexer_mode 7 13 0, lexer_mode 7 12 0, lexer_mode 7 12 0, lexer_mode 7 12 0, lexer_mode 53 19 0,
    lexer_mode 7 13 0, lexer_mode 7 13 0, lexer_mode 7 13 0, lexer_mode 7 13 0, lexer_mode 7 13 0,
    lexer_mode 7 13 0, lexer_mode 7 13 0, lexer_mode 53 11 1, lexer_mode 7 13 0, lexer_mode 3 15 0,
    lexer_mode 7 13 0, lexer_mode 7 13 0, lexer_mode 7 13 0, lexer_mode 7 13 0, lexer_mode 7 13 0,
    lexer_mode 7 13 0, lexer_mode 7 13 0, lexer_mode 53 19 0, lexer_mode 7 13 0, lexer_mode 7 13 0,
    lexer_mode 7 13 0, lexer_mode 7 13 0, lexer_mode 7 13 0, lexer_mode 7 13 0, lexer_mode 7 13 0,
    lexer_mode 53 19 0, lexer_mode 7 13 0, lexer_mode 7 11 0, lexer_mode 7 13 0, lexer_mode 7 11 0,
    lexer_mode 7 13 0, lexer_mode 7 13 0, lexer_mode 7 13 0, lexer_mode 7 13 0, lexer_mode 7 15 0,
    lexer_mode 7 15 0, lexer_mode 53 19 0, lexer_mode 7 14 0, lexer_mode 7 13 0, lexer_mode 7 13 0,
    lexer_mode 53 19 0, lexer_mode 53 15 0, lexer_mode 53 15 0, lexer_mode 7 15 0,
    lexer_mode 7 13 0, lexer_mode 7 13 0, lexer_mode 7 13 0, lexer_mode 7 13 0, lexer_mode 7 13 0,
    lexer_mode 53 19 0, lexer_mode 7 14 0, lexer_mode 7 13 0, lexer_mode 7 13 0, lexer_mode 7 14 0,
    lexer_mode 7 14 0, lexer_mode 7 13 0, lexer_mode 7 14 0, lexer_mode 7 15 0, lexer_mode 3 15 0,
    lexer_mode 7 13 0, lexer_mode 7 13 0, lexer_mode 7 14 0, lexer_mode 7 13 0, lexer_mode 7 13 0,
    lexer_mode 7 13 0, lexer_mode 7 13 0, lexer_mode 7 13 0, lexer_mode 7 14 0, lexer_mode 53 19 0,
    lexer_mode 7 13 0, lexer_mode 7 14 0, lexer_mode 7 13 0, lexer_mode 7 13 0, lexer_mode 7 13 0,
    lexer_mode 53 19 0, lexer_mode 7 13 0, lexer_mode 7 14 0]"

definition ts_lex_modes_74 :: "TSLexerMode list" where "ts_lex_modes_74 = [
    lexer_mode 7 14 0, lexer_mode 7 13 0, lexer_mode 7 13 0, lexer_mode 7 15 0, lexer_mode 7 13 0,
    lexer_mode 7 13 0, lexer_mode 53 15 0, lexer_mode 7 15 0, lexer_mode 7 14 0, lexer_mode 7 14 0,
    lexer_mode 7 13 0, lexer_mode 7 13 0, lexer_mode 7 13 0, lexer_mode 7 13 0, lexer_mode 7 13 0,
    lexer_mode 7 13 0, lexer_mode 7 13 0, lexer_mode 7 13 0, lexer_mode 7 13 0, lexer_mode 7 13 0,
    lexer_mode 7 13 0, lexer_mode 7 13 0, lexer_mode 9 14 1, lexer_mode 7 13 0, lexer_mode 7 13 0,
    lexer_mode 7 13 0, lexer_mode 53 19 0, lexer_mode 7 13 0, lexer_mode 7 13 0,
    lexer_mode 53 19 0, lexer_mode 7 13 0, lexer_mode 7 13 0, lexer_mode 7 11 0, lexer_mode 7 13 0,
    lexer_mode 7 14 0, lexer_mode 7 13 0, lexer_mode 7 13 0, lexer_mode 7 13 0, lexer_mode 53 19 0,
    lexer_mode 7 12 0, lexer_mode 7 13 0, lexer_mode 7 13 0, lexer_mode 7 13 0, lexer_mode 7 13 0,
    lexer_mode 7 13 0, lexer_mode 7 13 0, lexer_mode 7 13 0, lexer_mode 53 15 0, lexer_mode 7 14 0,
    lexer_mode 7 13 0, lexer_mode 7 13 0, lexer_mode 7 13 0, lexer_mode 53 19 0, lexer_mode 7 13 0,
    lexer_mode 7 13 0, lexer_mode 53 15 0, lexer_mode 7 11 0, lexer_mode 7 13 0,
    lexer_mode 53 15 0, lexer_mode 7 14 0, lexer_mode 7 13 0, lexer_mode 7 11 0, lexer_mode 7 13 0,
    lexer_mode 53 15 0, lexer_mode 53 19 0, lexer_mode 7 13 0, lexer_mode 7 14 0,
    lexer_mode 53 19 0, lexer_mode 53 19 0, lexer_mode 9 14 1, lexer_mode 7 13 0,
    lexer_mode 7 13 0, lexer_mode 53 15 0, lexer_mode 7 13 0, lexer_mode 7 13 0, lexer_mode 7 13 0,
    lexer_mode 7 13 0, lexer_mode 7 13 0, lexer_mode 7 13 0, lexer_mode 7 13 0, lexer_mode 7 13 0,
    lexer_mode 7 11 0, lexer_mode 7 13 0, lexer_mode 7 13 0, lexer_mode 7 15 0, lexer_mode 7 15 0,
    lexer_mode 53 15 0, lexer_mode 7 13 0, lexer_mode 7 13 0, lexer_mode 53 14 0,
    lexer_mode 7 13 0, lexer_mode 7 13 0, lexer_mode 7 13 0, lexer_mode 7 13 0, lexer_mode 7 12 0,
    lexer_mode 7 12 0, lexer_mode 7 12 0, lexer_mode 7 12 0, lexer_mode 53 12 0, lexer_mode 7 13 0,
    lexer_mode 7 13 0, lexer_mode 7 13 0, lexer_mode 7 13 0, lexer_mode 7 13 0, lexer_mode 7 13 0,
    lexer_mode 53 15 1, lexer_mode 7 13 0, lexer_mode 7 13 0, lexer_mode 7 13 0, lexer_mode 7 13 0,
    lexer_mode 7 15 0, lexer_mode 7 15 0, lexer_mode 7 13 0, lexer_mode 7 15 0, lexer_mode 7 13 0,
    lexer_mode 7 15 0, lexer_mode 7 13 0, lexer_mode 7 15 0, lexer_mode 7 13 0, lexer_mode 7 13 0,
    lexer_mode 53 12 0, lexer_mode 7 13 0, lexer_mode 7 13 0, lexer_mode 7 13 0, lexer_mode 7 13 0,
    lexer_mode 7 13 0, lexer_mode 7 13 0, lexer_mode 7 13 0, lexer_mode 7 13 0, lexer_mode 7 13 0,
    lexer_mode 7 13 0, lexer_mode 7 13 0, lexer_mode 7 12 0, lexer_mode 7 12 0, lexer_mode 7 12 0,
    lexer_mode 7 12 0, lexer_mode 7 12 0, lexer_mode 7 13 0, lexer_mode 7 12 0, lexer_mode 7 13 0,
    lexer_mode 7 13 0, lexer_mode 7 20 0, lexer_mode 7 13 0, lexer_mode 7 13 0, lexer_mode 7 13 0,
    lexer_mode 7 13 0, lexer_mode 7 13 0, lexer_mode 7 13 0, lexer_mode 7 13 0, lexer_mode 7 13 0]"

definition ts_lex_modes_75 :: "TSLexerMode list" where "ts_lex_modes_75 = [
    lexer_mode 7 13 0, lexer_mode 7 13 0, lexer_mode 53 13 0, lexer_mode 7 13 0, lexer_mode 7 13 0,
    lexer_mode 53 11 0, lexer_mode 7 13 0, lexer_mode 7 14 0, lexer_mode 7 13 0, lexer_mode 7 13 0,
    lexer_mode 7 13 0, lexer_mode 53 15 1, lexer_mode 53 13 0, lexer_mode 7 13 0,
    lexer_mode 7 13 0, lexer_mode 7 13 0, lexer_mode 7 13 0, lexer_mode 7 13 0, lexer_mode 53 11 0,
    lexer_mode 7 13 0, lexer_mode 7 13 0, lexer_mode 9 13 1, lexer_mode 7 13 0, lexer_mode 7 13 0,
    lexer_mode 7 13 0, lexer_mode 7 13 0, lexer_mode 7 13 0, lexer_mode 7 13 0, lexer_mode 7 13 0,
    lexer_mode 7 13 0, lexer_mode 7 13 0, lexer_mode 7 14 0, lexer_mode 7 13 0, lexer_mode 7 13 0,
    lexer_mode 7 13 0, lexer_mode 7 13 0, lexer_mode 7 13 0, lexer_mode 7 13 0, lexer_mode 7 15 0,
    lexer_mode 7 13 0, lexer_mode 7 13 0, lexer_mode 53 11 0, lexer_mode 7 13 0, lexer_mode 7 13 0,
    lexer_mode 7 13 0, lexer_mode 7 13 0, lexer_mode 7 13 0, lexer_mode 7 13 0, lexer_mode 53 13 1,
    lexer_mode 7 13 0, lexer_mode 7 13 0, lexer_mode 7 13 0, lexer_mode 7 13 0, lexer_mode 7 13 0,
    lexer_mode 7 13 0, lexer_mode 7 13 0, lexer_mode 7 13 0, lexer_mode 53 13 0, lexer_mode 7 13 0,
    lexer_mode 53 11 0, lexer_mode 7 13 0, lexer_mode 7 13 0, lexer_mode 53 15 0,
    lexer_mode 7 13 0, lexer_mode 7 13 0, lexer_mode 53 13 0, lexer_mode 7 13 0, lexer_mode 7 13 0,
    lexer_mode 7 13 0, lexer_mode 7 13 0, lexer_mode 7 13 0, lexer_mode 7 13 0, lexer_mode 7 13 0,
    lexer_mode 7 13 0, lexer_mode 7 13 0, lexer_mode 7 13 0, lexer_mode 7 13 0, lexer_mode 7 13 0,
    lexer_mode 7 13 0, lexer_mode 7 13 0, lexer_mode 7 13 0, lexer_mode 7 11 0, lexer_mode 7 13 0,
    lexer_mode 7 13 0, lexer_mode 7 13 0, lexer_mode 7 13 0, lexer_mode 7 13 0, lexer_mode 7 13 0,
    lexer_mode 7 13 0, lexer_mode 7 13 0, lexer_mode 7 13 0, lexer_mode 7 13 0, lexer_mode 7 13 0,
    lexer_mode 7 13 0, lexer_mode 7 13 0, lexer_mode 7 13 0, lexer_mode 7 13 0, lexer_mode 7 13 0,
    lexer_mode 53 12 0, lexer_mode 7 13 0, lexer_mode 7 13 0, lexer_mode 7 13 0, lexer_mode 7 13 0,
    lexer_mode 7 13 0, lexer_mode 7 13 0, lexer_mode 7 13 0, lexer_mode 7 13 0, lexer_mode 7 13 0,
    lexer_mode 9 13 1, lexer_mode 7 13 0, lexer_mode 7 13 0, lexer_mode 7 13 0, lexer_mode 7 13 0,
    lexer_mode 7 14 0, lexer_mode 7 12 0, lexer_mode 7 13 0, lexer_mode 7 13 0, lexer_mode 7 13 0,
    lexer_mode 7 13 0, lexer_mode 7 13 0, lexer_mode 53 11 0, lexer_mode 7 13 0, lexer_mode 7 13 0,
    lexer_mode 7 13 0, lexer_mode 7 13 0, lexer_mode 7 13 0, lexer_mode 7 14 0, lexer_mode 7 14 0,
    lexer_mode 7 13 0, lexer_mode 7 13 0, lexer_mode 7 14 0, lexer_mode 7 13 0, lexer_mode 7 13 0,
    lexer_mode 7 13 0, lexer_mode 7 13 0, lexer_mode 7 13 0, lexer_mode 7 13 0, lexer_mode 7 13 0,
    lexer_mode 7 12 0, lexer_mode 7 12 0, lexer_mode 7 12 0, lexer_mode 7 13 0, lexer_mode 7 12 0,
    lexer_mode 7 13 0, lexer_mode 7 13 0, lexer_mode 7 13 0, lexer_mode 7 13 0, lexer_mode 7 14 0,
    lexer_mode 7 13 0, lexer_mode 7 14 0]"

definition ts_lex_modes_76 :: "TSLexerMode list" where "ts_lex_modes_76 = [
    lexer_mode 7 13 0, lexer_mode 7 12 0, lexer_mode 7 12 0, lexer_mode 7 12 0, lexer_mode 7 12 0,
    lexer_mode 7 13 0, lexer_mode 7 13 0, lexer_mode 7 13 0, lexer_mode 7 13 0, lexer_mode 7 13 0,
    lexer_mode 7 14 0, lexer_mode 7 13 0, lexer_mode 7 13 0, lexer_mode 53 11 0, lexer_mode 7 13 0,
    lexer_mode 7 13 0, lexer_mode 7 13 0, lexer_mode 7 13 0, lexer_mode 7 13 0, lexer_mode 7 13 0,
    lexer_mode 7 13 0, lexer_mode 7 13 0, lexer_mode 7 13 0, lexer_mode 7 13 0, lexer_mode 7 13 0,
    lexer_mode 7 13 0, lexer_mode 7 13 0, lexer_mode 7 13 0, lexer_mode 7 13 0, lexer_mode 7 13 0,
    lexer_mode 7 13 0, lexer_mode 7 13 0, lexer_mode 7 13 0, lexer_mode 53 12 0, lexer_mode 7 13 0,
    lexer_mode 4 13 1, lexer_mode 7 14 0, lexer_mode 7 13 0, lexer_mode 7 13 0, lexer_mode 7 13 0,
    lexer_mode 7 13 0, lexer_mode 7 13 0, lexer_mode 7 13 0, lexer_mode 7 13 0, lexer_mode 7 13 0,
    lexer_mode 7 13 0, lexer_mode 7 13 0, lexer_mode 7 13 0, lexer_mode 7 13 0, lexer_mode 7 13 0,
    lexer_mode 7 13 0, lexer_mode 7 13 0, lexer_mode 7 14 0, lexer_mode 7 13 0, lexer_mode 7 14 0,
    lexer_mode 7 13 0, lexer_mode 7 13 0, lexer_mode 7 14 0, lexer_mode 7 14 0, lexer_mode 7 13 0,
    lexer_mode 7 14 0, lexer_mode 7 13 0, lexer_mode 7 13 0, lexer_mode 7 13 0, lexer_mode 7 13 0,
    lexer_mode 7 13 0, lexer_mode 7 13 0, lexer_mode 7 13 0, lexer_mode 7 13 0, lexer_mode 7 13 0,
    lexer_mode 7 13 0, lexer_mode 7 13 0, lexer_mode 7 13 0, lexer_mode 7 13 0, lexer_mode 7 13 0,
    lexer_mode 7 13 0, lexer_mode 7 13 0, lexer_mode 7 13 0, lexer_mode 53 12 0, lexer_mode 7 13 0,
    lexer_mode 7 13 0, lexer_mode 7 13 0, lexer_mode 7 13 0, lexer_mode 7 13 0, lexer_mode 7 13 0,
    lexer_mode 7 13 0, lexer_mode 7 13 0, lexer_mode 7 13 0, lexer_mode 7 13 0, lexer_mode 7 13 0,
    lexer_mode 7 13 0, lexer_mode 7 13 0, lexer_mode 7 13 0, lexer_mode 7 13 0, lexer_mode 7 13 0,
    lexer_mode 7 13 0, lexer_mode 7 13 0, lexer_mode 7 13 0, lexer_mode 7 13 0, lexer_mode 7 13 0,
    lexer_mode 7 13 0, lexer_mode 53 11 0, lexer_mode 7 13 0, lexer_mode 7 13 0,
    lexer_mode 53 15 1, lexer_mode 7 13 0, lexer_mode 7 13 0, lexer_mode 53 13 0,
    lexer_mode 7 15 0, lexer_mode 7 12 0, lexer_mode 7 13 0, lexer_mode 7 12 0, lexer_mode 7 12 0,
    lexer_mode 7 12 0, lexer_mode 7 12 0, lexer_mode 7 13 0, lexer_mode 7 13 0, lexer_mode 7 13 0,
    lexer_mode 7 15 0, lexer_mode 7 13 0, lexer_mode 7 13 0, lexer_mode 7 13 0, lexer_mode 7 13 0,
    lexer_mode 7 15 0, lexer_mode 7 13 0, lexer_mode 7 14 0, lexer_mode 7 12 0, lexer_mode 7 13 0,
    lexer_mode 7 13 0, lexer_mode 7 13 0, lexer_mode 7 13 0, lexer_mode 53 11 0,
    lexer_mode 53 11 0, lexer_mode 7 13 0, lexer_mode 7 13 0, lexer_mode 7 13 0, lexer_mode 7 13 0,
    lexer_mode 7 13 0, lexer_mode 7 13 0, lexer_mode 7 13 0, lexer_mode 7 13 0, lexer_mode 7 14 0,
    lexer_mode 7 13 0, lexer_mode 7 13 0, lexer_mode 7 13 0, lexer_mode 7 13 0, lexer_mode 7 13 0,
    lexer_mode 7 13 0, lexer_mode 7 13 0, lexer_mode 7 13 0]"

definition ts_lex_modes_77 :: "TSLexerMode list" where "ts_lex_modes_77 = [
    lexer_mode 7 13 0, lexer_mode 7 13 0, lexer_mode 7 13 0, lexer_mode 7 13 0, lexer_mode 7 13 0,
    lexer_mode 7 13 0, lexer_mode 7 13 0, lexer_mode 7 13 0, lexer_mode 7 13 0, lexer_mode 7 13 0,
    lexer_mode 7 13 0, lexer_mode 53 11 0, lexer_mode 7 13 0, lexer_mode 7 13 0, lexer_mode 7 13 0,
    lexer_mode 7 13 0, lexer_mode 7 13 0, lexer_mode 7 13 0, lexer_mode 53 11 0, lexer_mode 7 13 0,
    lexer_mode 53 13 0, lexer_mode 53 13 0, lexer_mode 7 13 0, lexer_mode 7 13 0,
    lexer_mode 7 13 0, lexer_mode 53 14 1, lexer_mode 4 13 1, lexer_mode 7 13 0, lexer_mode 4 13 1,
    lexer_mode 7 13 0, lexer_mode 7 13 0, lexer_mode 7 13 0, lexer_mode 7 13 0, lexer_mode 7 13 0,
    lexer_mode 7 13 0, lexer_mode 53 13 0, lexer_mode 7 13 0, lexer_mode 7 13 0, lexer_mode 7 13 0,
    lexer_mode 7 13 0, lexer_mode 7 13 0, lexer_mode 7 13 0, lexer_mode 53 13 0, lexer_mode 7 13 0,
    lexer_mode 7 13 0, lexer_mode 7 13 0, lexer_mode 7 13 0, lexer_mode 7 13 0, lexer_mode 53 13 0,
    lexer_mode 7 13 0, lexer_mode 7 13 0, lexer_mode 7 13 0, lexer_mode 53 13 0, lexer_mode 7 13 0,
    lexer_mode 7 15 0, lexer_mode 7 13 0, lexer_mode 7 15 0, lexer_mode 53 13 0, lexer_mode 7 13 0,
    lexer_mode 7 13 0, lexer_mode 7 15 0, lexer_mode 7 13 0, lexer_mode 7 13 0, lexer_mode 7 15 0,
    lexer_mode 7 13 0, lexer_mode 7 13 0, lexer_mode 7 13 0, lexer_mode 7 20 0, lexer_mode 7 15 0,
    lexer_mode 7 13 0, lexer_mode 53 12 0, lexer_mode 7 15 0, lexer_mode 7 13 0, lexer_mode 7 14 0,
    lexer_mode 7 14 0, lexer_mode 7 15 0, lexer_mode 7 13 0, lexer_mode 7 15 0, lexer_mode 7 13 0,
    lexer_mode 7 13 0, lexer_mode 7 13 0, lexer_mode 7 12 0, lexer_mode 7 13 0, lexer_mode 7 14 0,
    lexer_mode 7 13 0, lexer_mode 7 14 0, lexer_mode 7 13 0, lexer_mode 53 11 0, lexer_mode 7 14 0,
    lexer_mode 53 11 0, lexer_mode 7 13 0, lexer_mode 7 13 0, lexer_mode 53 15 1,
    lexer_mode 53 13 0, lexer_mode 7 13 0, lexer_mode 7 13 0, lexer_mode 7 13 0, lexer_mode 7 13 0,
    lexer_mode 7 13 0, lexer_mode 7 13 0, lexer_mode 53 11 0, lexer_mode 7 13 0, lexer_mode 7 13 0,
    lexer_mode 7 13 0, lexer_mode 7 13 0, lexer_mode 7 13 0, lexer_mode 7 13 0, lexer_mode 7 13 0,
    lexer_mode 53 12 0, lexer_mode 7 13 0, lexer_mode 7 20 0, lexer_mode 7 13 0, lexer_mode 7 14 0,
    lexer_mode 7 13 0, lexer_mode 7 13 0, lexer_mode 7 13 0, lexer_mode 7 12 0, lexer_mode 7 13 0,
    lexer_mode 7 13 0, lexer_mode 7 14 0, lexer_mode 7 13 0, lexer_mode 7 13 0, lexer_mode 7 13 0,
    lexer_mode 7 13 0, lexer_mode 7 13 0, lexer_mode 7 13 0, lexer_mode 7 13 0, lexer_mode 7 14 0,
    lexer_mode 7 13 0, lexer_mode 7 13 0, lexer_mode 7 13 0, lexer_mode 7 13 0, lexer_mode 7 13 0,
    lexer_mode 7 13 0, lexer_mode 7 13 0, lexer_mode 53 13 0, lexer_mode 7 14 0, lexer_mode 7 13 0,
    lexer_mode 7 13 0, lexer_mode 7 14 0, lexer_mode 7 13 0, lexer_mode 7 13 0, lexer_mode 7 13 0,
    lexer_mode 7 13 0, lexer_mode 53 13 0, lexer_mode 7 13 0, lexer_mode 7 14 0, lexer_mode 7 13 0,
    lexer_mode 7 13 0, lexer_mode 7 14 0]"

definition ts_lex_modes_78 :: "TSLexerMode list" where "ts_lex_modes_78 = [
    lexer_mode 7 12 0, lexer_mode 7 13 0, lexer_mode 7 14 0, lexer_mode 4 13 1, lexer_mode 7 13 0,
    lexer_mode 7 13 0, lexer_mode 53 11 0, lexer_mode 53 11 0, lexer_mode 7 14 0,
    lexer_mode 7 13 0, lexer_mode 7 13 0, lexer_mode 7 13 0, lexer_mode 53 15 0, lexer_mode 7 13 0,
    lexer_mode 7 13 0, lexer_mode 7 14 0, lexer_mode 7 13 0, lexer_mode 7 13 0, lexer_mode 7 13 0,
    lexer_mode 7 13 0, lexer_mode 7 13 0, lexer_mode 7 13 0, lexer_mode 7 14 0, lexer_mode 7 13 0,
    lexer_mode 7 13 0, lexer_mode 53 12 0, lexer_mode 7 13 0, lexer_mode 7 13 0, lexer_mode 7 13 0,
    lexer_mode 7 13 0, lexer_mode 53 12 0, lexer_mode 53 12 0, lexer_mode 7 13 0,
    lexer_mode 53 15 1, lexer_mode 7 13 0, lexer_mode 53 15 0, lexer_mode 7 13 0,
    lexer_mode 7 15 0, lexer_mode 7 15 0, lexer_mode 7 13 0, lexer_mode 7 15 0, lexer_mode 7 15 0,
    lexer_mode 7 13 0, lexer_mode 7 13 0, lexer_mode 7 13 0, lexer_mode 7 13 0, lexer_mode 7 13 0,
    lexer_mode 7 13 0, lexer_mode 7 13 0, lexer_mode 7 13 0, lexer_mode 7 13 0, lexer_mode 7 13 0,
    lexer_mode 7 13 0, lexer_mode 7 13 0, lexer_mode 7 13 0, lexer_mode 7 13 0, lexer_mode 7 13 0,
    lexer_mode 7 20 0, lexer_mode 7 13 0, lexer_mode 7 13 0, lexer_mode 7 13 0, lexer_mode 7 13 0,
    lexer_mode 7 13 0, lexer_mode 7 13 0, lexer_mode 7 13 0, lexer_mode 7 13 0, lexer_mode 7 13 0,
    lexer_mode 7 13 0, lexer_mode 7 13 0, lexer_mode 7 13 0, lexer_mode 7 13 0, lexer_mode 7 13 0,
    lexer_mode 7 13 0, lexer_mode 7 13 0, lexer_mode 7 13 0, lexer_mode 7 13 0, lexer_mode 7 13 0,
    lexer_mode 7 13 0, lexer_mode 7 13 0, lexer_mode 7 13 0, lexer_mode 7 13 0, lexer_mode 7 13 0,
    lexer_mode 7 13 0, lexer_mode 7 13 0, lexer_mode 7 13 0, lexer_mode 7 13 0, lexer_mode 7 20 0,
    lexer_mode 7 13 0, lexer_mode 7 13 0, lexer_mode 7 13 0, lexer_mode 7 13 0, lexer_mode 7 13 0,
    lexer_mode 7 13 0, lexer_mode 53 11 0, lexer_mode 7 15 0, lexer_mode 7 13 0,
    lexer_mode 53 13 0, lexer_mode 7 13 0, lexer_mode 7 13 0, lexer_mode 7 15 0, lexer_mode 7 13 0,
    lexer_mode 7 13 0, lexer_mode 7 13 0, lexer_mode 53 13 0, lexer_mode 53 13 0,
    lexer_mode 7 13 0, lexer_mode 53 11 0, lexer_mode 53 14 0, lexer_mode 53 12 0,
    lexer_mode 53 15 0, lexer_mode 53 15 0, lexer_mode 53 15 0, lexer_mode 53 15 0,
    lexer_mode 7 14 0, lexer_mode 53 11 0, lexer_mode 7 13 0, lexer_mode 7 14 0,
    lexer_mode 53 15 0, lexer_mode 53 15 1, lexer_mode 53 14 0, lexer_mode 53 15 0,
    lexer_mode 53 14 0, lexer_mode 53 14 0, lexer_mode 53 12 0, lexer_mode 53 14 0,
    lexer_mode 53 12 0, lexer_mode 53 15 0, lexer_mode 53 12 0, lexer_mode 53 15 0,
    lexer_mode 53 12 0, lexer_mode 53 13 0, lexer_mode 53 12 0, lexer_mode 53 12 0,
    lexer_mode 7 15 0, lexer_mode 53 21 0, lexer_mode 53 11 0, lexer_mode 54 18 0,
    lexer_mode 53 12 0, lexer_mode 53 16 1, lexer_mode 53 13 0, lexer_mode 53 14 0,
    lexer_mode 53 14 0, lexer_mode 53 14 0, lexer_mode 53 15 0, lexer_mode 7 12 0,
    lexer_mode 7 12 0, lexer_mode 53 15 0, lexer_mode 53 12 0, lexer_mode 7 13 0,
    lexer_mode 7 13 0]"

definition ts_lex_modes_79 :: "TSLexerMode list" where "ts_lex_modes_79 = [
    lexer_mode 53 15 0, lexer_mode 53 14 0, lexer_mode 53 21 0, lexer_mode 7 13 0,
    lexer_mode 53 13 0, lexer_mode 7 13 0, lexer_mode 53 14 0, lexer_mode 53 14 0,
    lexer_mode 53 14 0, lexer_mode 53 14 0, lexer_mode 53 14 0, lexer_mode 53 15 0,
    lexer_mode 53 12 0, lexer_mode 53 13 1, lexer_mode 53 16 1, lexer_mode 53 12 0,
    lexer_mode 53 12 0, lexer_mode 53 12 0, lexer_mode 53 11 0, lexer_mode 53 15 0,
    lexer_mode 53 14 0, lexer_mode 53 15 0, lexer_mode 53 14 0, lexer_mode 53 15 0,
    lexer_mode 53 15 0, lexer_mode 53 12 0, lexer_mode 53 13 0, lexer_mode 53 15 0,
    lexer_mode 3 15 0, lexer_mode 53 14 0, lexer_mode 53 12 0, lexer_mode 53 14 0,
    lexer_mode 53 13 0, lexer_mode 53 12 0, lexer_mode 53 15 0, lexer_mode 53 12 0,
    lexer_mode 53 14 0, lexer_mode 53 12 0, lexer_mode 53 12 0, lexer_mode 53 12 0,
    lexer_mode 53 12 0, lexer_mode 53 12 0, lexer_mode 7 13 0, lexer_mode 53 12 0,
    lexer_mode 3 15 0, lexer_mode 53 14 0, lexer_mode 53 12 0, lexer_mode 53 12 0,
    lexer_mode 53 14 0, lexer_mode 53 14 0, lexer_mode 53 12 0, lexer_mode 53 14 0,
    lexer_mode 53 12 0, lexer_mode 53 12 0, lexer_mode 53 14 0, lexer_mode 53 15 0,
    lexer_mode 53 11 0, lexer_mode 53 12 0, lexer_mode 53 14 0, lexer_mode 53 12 0,
    lexer_mode 3 15 0, lexer_mode 53 13 0, lexer_mode 53 12 0, lexer_mode 53 14 0,
    lexer_mode 53 15 0, lexer_mode 53 15 0, lexer_mode 53 12 0, lexer_mode 53 14 0,
    lexer_mode 53 14 0, lexer_mode 3 15 0, lexer_mode 54 18 0, lexer_mode 53 15 0,
    lexer_mode 53 14 0, lexer_mode 3 15 0, lexer_mode 7 13 0, lexer_mode 53 14 0,
    lexer_mode 53 12 0, lexer_mode 53 11 0, lexer_mode 53 12 0, lexer_mode 53 12 0,
    lexer_mode 53 16 1, lexer_mode 53 12 0, lexer_mode 53 15 0, lexer_mode 53 15 0,
    lexer_mode 53 15 0, lexer_mode 53 12 0, lexer_mode 53 13 0, lexer_mode 53 14 0,
    lexer_mode 53 12 0, lexer_mode 53 12 0, lexer_mode 53 13 0, lexer_mode 53 12 0,
    lexer_mode 53 12 0, lexer_mode 53 14 1, lexer_mode 53 14 0, lexer_mode 53 13 0,
    lexer_mode 53 15 0, lexer_mode 53 14 0, lexer_mode 53 15 1, lexer_mode 53 14 0,
    lexer_mode 53 14 0, lexer_mode 53 15 0, lexer_mode 53 14 0, lexer_mode 53 14 0,
    lexer_mode 53 12 0, lexer_mode 53 13 0, lexer_mode 53 15 0, lexer_mode 53 14 0,
    lexer_mode 7 13 0, lexer_mode 7 13 0, lexer_mode 53 15 0, lexer_mode 53 14 0,
    lexer_mode 7 13 0, lexer_mode 53 15 0, lexer_mode 53 14 0, lexer_mode 53 14 0,
    lexer_mode 7 13 0, lexer_mode 53 12 0, lexer_mode 53 12 0, lexer_mode 53 12 0,
    lexer_mode 53 13 0, lexer_mode 53 14 0, lexer_mode 53 13 0, lexer_mode 7 13 0,
    lexer_mode 53 13 0, lexer_mode 53 14 0, lexer_mode 53 13 0, lexer_mode 53 12 0,
    lexer_mode 53 13 0, lexer_mode 3 15 0, lexer_mode 53 13 0, lexer_mode 53 15 0,
    lexer_mode 53 15 0, lexer_mode 53 12 0, lexer_mode 53 14 0, lexer_mode 53 13 0,
    lexer_mode 53 14 0, lexer_mode 53 13 0, lexer_mode 53 12 0, lexer_mode 53 13 0,
    lexer_mode 53 11 0, lexer_mode 53 14 0, lexer_mode 53 15 0, lexer_mode 53 13 0,
    lexer_mode 53 13 1, lexer_mode 53 12 0, lexer_mode 53 14 0, lexer_mode 53 13 0,
    lexer_mode 53 14 0, lexer_mode 7 13 0]"

definition ts_lex_modes_80 :: "TSLexerMode list" where "ts_lex_modes_80 = [
    lexer_mode 7 13 0, lexer_mode 53 14 0, lexer_mode 53 15 0, lexer_mode 53 14 0,
    lexer_mode 53 14 0, lexer_mode 53 14 0, lexer_mode 53 15 0, lexer_mode 7 11 0,
    lexer_mode 53 15 0, lexer_mode 53 12 0, lexer_mode 53 14 0, lexer_mode 53 15 0,
    lexer_mode 53 16 1, lexer_mode 53 15 0, lexer_mode 53 11 0, lexer_mode 53 14 0,
    lexer_mode 53 13 0, lexer_mode 53 12 0, lexer_mode 53 15 0, lexer_mode 53 12 0,
    lexer_mode 53 12 0, lexer_mode 53 13 0, lexer_mode 7 12 0, lexer_mode 53 14 0,
    lexer_mode 53 13 0, lexer_mode 53 15 0, lexer_mode 53 14 0, lexer_mode 53 15 0,
    lexer_mode 53 14 0, lexer_mode 7 13 0, lexer_mode 53 12 0, lexer_mode 53 14 0,
    lexer_mode 53 14 0, lexer_mode 53 14 0, lexer_mode 53 15 1, lexer_mode 53 12 0,
    lexer_mode 53 15 0, lexer_mode 53 12 0, lexer_mode 53 15 0, lexer_mode 53 13 1,
    lexer_mode 53 13 0, lexer_mode 53 14 0, lexer_mode 53 14 0, lexer_mode 53 12 0,
    lexer_mode 53 15 0, lexer_mode 53 12 0, lexer_mode 53 11 0, lexer_mode 53 21 0,
    lexer_mode 53 12 0, lexer_mode 53 14 0, lexer_mode 53 14 0, lexer_mode 53 15 0,
    lexer_mode 53 14 0, lexer_mode 53 13 0, lexer_mode 53 14 0, lexer_mode 53 12 0,
    lexer_mode 53 12 0, lexer_mode 53 14 0, lexer_mode 53 14 0, lexer_mode 53 14 0,
    lexer_mode 53 12 0, lexer_mode 53 12 0, lexer_mode 53 12 0, lexer_mode 53 12 0,
    lexer_mode 53 12 0, lexer_mode 53 12 0, lexer_mode 53 13 0, lexer_mode 53 12 0,
    lexer_mode 53 12 0, lexer_mode 53 12 0, lexer_mode 53 12 0, lexer_mode 53 12 0,
    lexer_mode 53 12 0, lexer_mode 53 12 0, lexer_mode 7 15 0, lexer_mode 53 15 1,
    lexer_mode 53 14 0, lexer_mode 53 14 0, lexer_mode 53 14 0, lexer_mode 53 12 0,
    lexer_mode 53 14 0, lexer_mode 53 15 0, lexer_mode 53 12 0, lexer_mode 53 12 0,
    lexer_mode 53 15 0, lexer_mode 7 11 0, lexer_mode 53 12 0, lexer_mode 53 14 0,
    lexer_mode 53 21 0, lexer_mode 53 12 0, lexer_mode 53 12 0, lexer_mode 53 21 0,
    lexer_mode 53 12 0, lexer_mode 53 13 0, lexer_mode 53 12 0, lexer_mode 53 14 0,
    lexer_mode 53 12 0, lexer_mode 53 13 0, lexer_mode 53 15 0, lexer_mode 53 14 0,
    lexer_mode 53 12 0, lexer_mode 53 12 0, lexer_mode 53 21 0, lexer_mode 53 13 0,
    lexer_mode 53 13 0, lexer_mode 53 15 0, lexer_mode 53 14 0, lexer_mode 7 11 0,
    lexer_mode 53 14 0, lexer_mode 53 12 0, lexer_mode 7 13 0, lexer_mode 53 15 0,
    lexer_mode 7 13 0, lexer_mode 7 11 0, lexer_mode 53 11 0, lexer_mode 53 12 0,
    lexer_mode 53 12 0, lexer_mode 3 15 0, lexer_mode 53 14 0, lexer_mode 53 13 0,
    lexer_mode 53 12 0, lexer_mode 53 14 0, lexer_mode 53 12 0, lexer_mode 53 15 0,
    lexer_mode 53 14 0, lexer_mode 7 14 0, lexer_mode 53 11 0, lexer_mode 53 15 0,
    lexer_mode 53 14 0, lexer_mode 53 14 0, lexer_mode 53 12 0, lexer_mode 53 14 0,
    lexer_mode 53 12 0, lexer_mode 53 14 0, lexer_mode 53 16 1, lexer_mode 53 15 0,
    lexer_mode 53 14 0, lexer_mode 53 12 0, lexer_mode 53 12 0, lexer_mode 53 12 0,
    lexer_mode 53 12 0, lexer_mode 53 14 0, lexer_mode 53 15 0, lexer_mode 53 15 0,
    lexer_mode 53 12 0, lexer_mode 53 12 0, lexer_mode 53 14 0, lexer_mode 53 14 0,
    lexer_mode 53 12 0, lexer_mode 53 12 0]"

definition ts_lex_modes_81 :: "TSLexerMode list" where "ts_lex_modes_81 = [
    lexer_mode 53 14 0, lexer_mode 53 12 0, lexer_mode 53 14 0, lexer_mode 53 12 0,
    lexer_mode 53 15 0, lexer_mode 53 15 0, lexer_mode 53 12 0, lexer_mode 53 12 0,
    lexer_mode 53 12 0, lexer_mode 53 12 0, lexer_mode 54 18 0, lexer_mode 53 14 0,
    lexer_mode 53 21 0, lexer_mode 53 14 0, lexer_mode 53 15 1, lexer_mode 53 15 0,
    lexer_mode 53 15 0, lexer_mode 53 12 0, lexer_mode 53 11 0, lexer_mode 53 12 0,
    lexer_mode 53 14 0, lexer_mode 53 12 0, lexer_mode 53 14 0, lexer_mode 53 15 0,
    lexer_mode 53 15 0, lexer_mode 53 14 0, lexer_mode 53 16 1, lexer_mode 7 13 0,
    lexer_mode 53 15 0, lexer_mode 53 14 0, lexer_mode 53 13 0, lexer_mode 53 13 0,
    lexer_mode 53 15 0, lexer_mode 53 15 0, lexer_mode 53 14 0, lexer_mode 53 12 0,
    lexer_mode 7 13 0, lexer_mode 53 14 0, lexer_mode 53 14 0, lexer_mode 53 12 0,
    lexer_mode 53 12 0, lexer_mode 53 12 0, lexer_mode 53 14 0, lexer_mode 7 13 0,
    lexer_mode 53 21 0, lexer_mode 53 12 0, lexer_mode 53 12 0, lexer_mode 53 12 0,
    lexer_mode 53 14 0, lexer_mode 53 14 0, lexer_mode 53 14 0, lexer_mode 53 12 0,
    lexer_mode 53 12 0, lexer_mode 53 12 0, lexer_mode 53 12 0, lexer_mode 53 12 0,
    lexer_mode 53 12 0, lexer_mode 53 14 0, lexer_mode 53 15 0, lexer_mode 53 14 0,
    lexer_mode 53 12 0, lexer_mode 53 15 0, lexer_mode 54 18 0, lexer_mode 53 14 0,
    lexer_mode 53 11 0, lexer_mode 53 14 0, lexer_mode 53 14 0, lexer_mode 53 14 0,
    lexer_mode 53 13 0, lexer_mode 53 12 0, lexer_mode 53 12 0, lexer_mode 53 12 0,
    lexer_mode 53 14 0, lexer_mode 53 13 0, lexer_mode 53 12 0, lexer_mode 53 11 0,
    lexer_mode 53 12 0, lexer_mode 53 14 0, lexer_mode 53 12 0, lexer_mode 53 12 0,
    lexer_mode 53 14 0, lexer_mode 53 14 0, lexer_mode 53 14 0, lexer_mode 53 11 0,
    lexer_mode 53 14 0, lexer_mode 7 14 0, lexer_mode 53 14 0, lexer_mode 7 14 0,
    lexer_mode 53 12 0, lexer_mode 53 11 0, lexer_mode 53 14 0, lexer_mode 53 14 0,
    lexer_mode 53 15 0, lexer_mode 7 14 0, lexer_mode 53 14 0, lexer_mode 53 14 0,
    lexer_mode 53 14 0, lexer_mode 53 12 0, lexer_mode 53 13 0, lexer_mode 53 14 0,
    lexer_mode 54 18 0, lexer_mode 53 13 0, lexer_mode 53 14 0, lexer_mode 53 14 0,
    lexer_mode 53 12 0, lexer_mode 7 13 0, lexer_mode 53 15 0, lexer_mode 53 12 0,
    lexer_mode 53 14 0, lexer_mode 7 13 0, lexer_mode 53 16 1, lexer_mode 53 12 0,
    lexer_mode 7 13 0, lexer_mode 53 14 0, lexer_mode 53 11 0, lexer_mode 53 15 0,
    lexer_mode 53 14 0, lexer_mode 53 14 0, lexer_mode 53 14 0, lexer_mode 53 13 0,
    lexer_mode 53 14 0, lexer_mode 3 15 0, lexer_mode 53 14 0, lexer_mode 53 13 0,
    lexer_mode 53 12 0, lexer_mode 7 15 0, lexer_mode 53 12 0, lexer_mode 53 12 0,
    lexer_mode 53 13 0, lexer_mode 3 15 0, lexer_mode 53 14 0, lexer_mode 53 15 0,
    lexer_mode 53 12 0, lexer_mode 53 12 0, lexer_mode 53 16 1, lexer_mode 53 14 0,
    lexer_mode 53 13 0, lexer_mode 53 14 1, lexer_mode 53 13 0, lexer_mode 7 20 0,
    lexer_mode 7 13 0, lexer_mode 53 14 0, lexer_mode 53 13 0, lexer_mode 53 13 0,
    lexer_mode 53 13 0, lexer_mode 53 11 0, lexer_mode 53 13 0, lexer_mode 7 13 0,
    lexer_mode 53 13 0, lexer_mode 53 11 0]"

definition ts_lex_modes_82 :: "TSLexerMode list" where "ts_lex_modes_82 = [
    lexer_mode 53 13 0, lexer_mode 53 13 0, lexer_mode 53 12 0, lexer_mode 53 13 0,
    lexer_mode 53 13 0, lexer_mode 7 20 0, lexer_mode 53 11 0, lexer_mode 53 13 0,
    lexer_mode 53 13 0, lexer_mode 53 13 0, lexer_mode 53 13 0, lexer_mode 53 12 0,
    lexer_mode 7 20 0, lexer_mode 53 2 0, lexer_mode 53 12 0, lexer_mode 53 13 1,
    lexer_mode 53 13 0, lexer_mode 53 13 0, lexer_mode 53 12 0, lexer_mode 53 11 0,
    lexer_mode 7 13 0, lexer_mode 53 13 0, lexer_mode 53 13 0, lexer_mode 53 11 0,
    lexer_mode 53 11 0, lexer_mode 7 20 0, lexer_mode 7 20 0, lexer_mode 53 12 0,
    lexer_mode 53 13 0, lexer_mode 53 13 1, lexer_mode 53 13 0, lexer_mode 53 13 0,
    lexer_mode 53 13 0, lexer_mode 53 13 0, lexer_mode 53 2 0, lexer_mode 53 14 0,
    lexer_mode 53 14 0, lexer_mode 53 11 0, lexer_mode 53 11 0, lexer_mode 7 13 0,
    lexer_mode 7 20 0, lexer_mode 53 12 0, lexer_mode 53 13 0, lexer_mode 53 13 0,
    lexer_mode 53 14 0, lexer_mode 7 20 0, lexer_mode 53 13 1, lexer_mode 53 14 1,
    lexer_mode 53 12 0, lexer_mode 53 12 0, lexer_mode 7 13 0, lexer_mode 53 13 0,
    lexer_mode 53 13 0, lexer_mode 53 13 0, lexer_mode 53 13 0, lexer_mode 7 13 0,
    lexer_mode 53 13 0, lexer_mode 7 13 0, lexer_mode 53 14 0, lexer_mode 53 11 0,
    lexer_mode 7 20 0, lexer_mode 53 14 0, lexer_mode 7 20 0, lexer_mode 7 20 0,
    lexer_mode 53 11 0, lexer_mode 53 12 0, lexer_mode 53 13 0, lexer_mode 7 20 0,
    lexer_mode 53 15 0, lexer_mode 7 13 0, lexer_mode 53 12 0, lexer_mode 53 15 0,
    lexer_mode 53 13 0, lexer_mode 53 15 0, lexer_mode 53 13 0, lexer_mode 53 13 0,
    lexer_mode 53 13 0, lexer_mode 53 12 0, lexer_mode 53 13 0, lexer_mode 53 13 0,
    lexer_mode 53 13 0, lexer_mode 53 14 0, lexer_mode 7 20 0, lexer_mode 53 13 0,
    lexer_mode 53 13 0, lexer_mode 53 12 0, lexer_mode 53 15 0, lexer_mode 53 13 1,
    lexer_mode 53 13 0, lexer_mode 53 13 0, lexer_mode 53 11 0, lexer_mode 53 13 0,
    lexer_mode 53 14 0, lexer_mode 53 11 0, lexer_mode 53 14 0, lexer_mode 53 13 0,
    lexer_mode 53 12 0, lexer_mode 53 11 0, lexer_mode 53 14 0, lexer_mode 53 14 0,
    lexer_mode 53 12 0, lexer_mode 53 15 0, lexer_mode 53 14 0, lexer_mode 53 13 0,
    lexer_mode 53 13 0, lexer_mode 53 2 0, lexer_mode 53 12 0, lexer_mode 53 11 0,
    lexer_mode 53 15 0, lexer_mode 7 20 0, lexer_mode 53 13 1, lexer_mode 53 15 0,
    lexer_mode 53 13 0, lexer_mode 53 15 0, lexer_mode 53 14 0, lexer_mode 53 13 0,
    lexer_mode 7 20 0, lexer_mode 53 12 0, lexer_mode 7 20 0, lexer_mode 53 12 0,
    lexer_mode 53 13 0, lexer_mode 53 11 0, lexer_mode 53 11 0, lexer_mode 53 13 0,
    lexer_mode 53 13 0, lexer_mode 53 11 0, lexer_mode 53 12 0, lexer_mode 53 13 0,
    lexer_mode 53 13 0, lexer_mode 53 13 0, lexer_mode 7 20 0, lexer_mode 53 11 0,
    lexer_mode 53 11 0, lexer_mode 53 13 1, lexer_mode 53 13 1, lexer_mode 53 13 0,
    lexer_mode 53 12 0, lexer_mode 53 13 0, lexer_mode 53 13 0, lexer_mode 7 20 0,
    lexer_mode 53 14 0, lexer_mode 53 2 0, lexer_mode 53 11 0, lexer_mode 7 20 0,
    lexer_mode 53 12 0, lexer_mode 53 13 0, lexer_mode 53 11 0, lexer_mode 53 13 0,
    lexer_mode 53 11 0, lexer_mode 53 13 0]"

definition ts_lex_modes_83 :: "TSLexerMode list" where "ts_lex_modes_83 = [
    lexer_mode 53 13 0, lexer_mode 53 13 0, lexer_mode 53 13 0, lexer_mode 53 13 0,
    lexer_mode 53 13 0, lexer_mode 53 13 0, lexer_mode 53 12 0, lexer_mode 53 13 0,
    lexer_mode 53 13 0, lexer_mode 53 13 0, lexer_mode 53 13 0, lexer_mode 53 13 1,
    lexer_mode 53 13 1, lexer_mode 53 15 0, lexer_mode 53 13 1, lexer_mode 53 13 0,
    lexer_mode 53 14 0, lexer_mode 53 13 1, lexer_mode 53 13 1, lexer_mode 7 13 0,
    lexer_mode 53 14 0, lexer_mode 53 13 1, lexer_mode 53 13 0, lexer_mode 53 13 1,
    lexer_mode 53 14 0, lexer_mode 5 13 0, lexer_mode 53 15 0, lexer_mode 53 13 0,
    lexer_mode 53 13 1, lexer_mode 53 14 0, lexer_mode 53 13 0, lexer_mode 53 12 0,
    lexer_mode 53 13 1, lexer_mode 53 13 0, lexer_mode 53 13 1, lexer_mode 53 15 0,
    lexer_mode 5 13 0, lexer_mode 7 13 0, lexer_mode 53 13 0, lexer_mode 53 13 0,
    lexer_mode 53 15 0, lexer_mode 53 13 0, lexer_mode 53 14 0, lexer_mode 53 13 1,
    lexer_mode 53 13 0, lexer_mode 53 14 0, lexer_mode 53 14 0, lexer_mode 53 15 0,
    lexer_mode 53 14 0, lexer_mode 53 13 1, lexer_mode 53 13 0, lexer_mode 53 15 0,
    lexer_mode 53 13 0, lexer_mode 53 14 0, lexer_mode 53 13 1, lexer_mode 5 13 0,
    lexer_mode 53 13 0, lexer_mode 53 13 0, lexer_mode 53 15 0, lexer_mode 53 15 0,
    lexer_mode 53 14 0, lexer_mode 53 13 0, lexer_mode 53 13 0, lexer_mode 53 13 0,
    lexer_mode 53 14 0, lexer_mode 7 13 0, lexer_mode 5 13 0, lexer_mode 53 13 0,
    lexer_mode 53 13 0, lexer_mode 53 12 0, lexer_mode 53 14 0, lexer_mode 53 13 0,
    lexer_mode 53 14 0, lexer_mode 53 14 0, lexer_mode 53 13 1, lexer_mode 53 13 1,
    lexer_mode 53 12 0, lexer_mode 53 12 0, lexer_mode 53 13 0, lexer_mode 53 15 0,
    lexer_mode 53 13 1, lexer_mode 53 12 0, lexer_mode 53 14 0, lexer_mode 53 13 0,
    lexer_mode 53 15 0, lexer_mode 5 13 0, lexer_mode 53 13 0, lexer_mode 7 13 0,
    lexer_mode 53 15 0, lexer_mode 53 12 0, lexer_mode 53 13 0, lexer_mode 53 14 0,
    lexer_mode 53 13 0, lexer_mode 53 14 0, lexer_mode 53 13 1, lexer_mode 53 14 0,
    lexer_mode 53 12 0, lexer_mode 53 14 0, lexer_mode 53 13 0, lexer_mode 53 13 0,
    lexer_mode 53 15 0, lexer_mode 53 15 0, lexer_mode 53 15 0, lexer_mode 53 13 1,
    lexer_mode 53 13 0, lexer_mode 7 13 0, lexer_mode 53 13 0, lexer_mode 53 12 0,
    lexer_mode 53 13 0, lexer_mode 53 14 0, lexer_mode 53 14 0, lexer_mode 53 14 0,
    lexer_mode 53 13 0, lexer_mode 53 13 0, lexer_mode 7 13 0, lexer_mode 53 13 0,
    lexer_mode 53 13 0, lexer_mode 53 22 0, lexer_mode 53 14 0, lexer_mode 53 13 0,
    lexer_mode 53 13 0, lexer_mode 53 14 0, lexer_mode 53 13 1, lexer_mode 53 12 0,
    lexer_mode 53 12 0, lexer_mode 7 13 0, lexer_mode 53 13 1, lexer_mode 53 12 0,
    lexer_mode 53 15 0, lexer_mode 53 13 0, lexer_mode 53 13 1, lexer_mode 53 13 0,
    lexer_mode 53 22 0, lexer_mode 53 13 0, lexer_mode 7 13 0, lexer_mode 53 15 0,
    lexer_mode 53 13 0, lexer_mode 53 22 0, lexer_mode 53 12 0, lexer_mode 53 12 0,
    lexer_mode 53 12 0, lexer_mode 53 15 0, lexer_mode 53 15 0, lexer_mode 53 15 0,
    lexer_mode 53 14 0, lexer_mode 53 14 0, lexer_mode 53 13 0, lexer_mode 53 13 0,
    lexer_mode 53 13 1, lexer_mode 53 13 0]"

definition ts_lex_modes_84 :: "TSLexerMode list" where "ts_lex_modes_84 = [
    lexer_mode 53 15 0, lexer_mode 7 13 0, lexer_mode 53 14 0, lexer_mode 53 14 0,
    lexer_mode 53 13 0, lexer_mode 53 13 0, lexer_mode 53 14 0, lexer_mode 53 14 0,
    lexer_mode 53 15 0, lexer_mode 53 13 0, lexer_mode 53 13 1, lexer_mode 53 13 0,
    lexer_mode 53 13 0, lexer_mode 7 13 0, lexer_mode 53 13 0, lexer_mode 7 13 0,
    lexer_mode 53 14 0, lexer_mode 53 15 0, lexer_mode 53 14 0, lexer_mode 53 12 0,
    lexer_mode 5 13 0, lexer_mode 53 12 0, lexer_mode 53 15 0, lexer_mode 53 14 0,
    lexer_mode 53 13 0, lexer_mode 53 13 0, lexer_mode 53 14 0, lexer_mode 53 13 1,
    lexer_mode 53 11 0, lexer_mode 53 13 0, lexer_mode 53 13 0, lexer_mode 5 13 0,
    lexer_mode 53 22 0, lexer_mode 53 13 0, lexer_mode 53 14 0, lexer_mode 7 13 0,
    lexer_mode 53 13 1, lexer_mode 53 13 1, lexer_mode 53 13 0, lexer_mode 53 15 0,
    lexer_mode 53 13 1, lexer_mode 53 15 0, lexer_mode 53 12 0, lexer_mode 53 12 0,
    lexer_mode 53 15 0, lexer_mode 53 13 0, lexer_mode 53 12 0, lexer_mode 53 13 1,
    lexer_mode 53 15 0, lexer_mode 53 13 1, lexer_mode 53 13 0, lexer_mode 53 11 0,
    lexer_mode 7 13 0, lexer_mode 53 13 0, lexer_mode 53 14 0, lexer_mode 53 13 1,
    lexer_mode 53 15 0, lexer_mode 53 12 0, lexer_mode 53 13 1, lexer_mode 53 13 0,
    lexer_mode 53 15 0, lexer_mode 53 13 0, lexer_mode 53 14 0, lexer_mode 53 14 0,
    lexer_mode 53 13 0, lexer_mode 53 13 0, lexer_mode 53 14 0, lexer_mode 53 14 0,
    lexer_mode 53 13 0, lexer_mode 53 13 0, lexer_mode 53 12 0, lexer_mode 53 13 0,
    lexer_mode 5 13 0, lexer_mode 53 13 0, lexer_mode 53 13 0, lexer_mode 53 13 0,
    lexer_mode 53 12 0, lexer_mode 53 13 0, lexer_mode 53 12 0, lexer_mode 7 13 0,
    lexer_mode 53 13 0, lexer_mode 7 13 0, lexer_mode 53 13 0, lexer_mode 53 13 1,
    lexer_mode 53 15 0, lexer_mode 53 14 0, lexer_mode 53 13 1, lexer_mode 53 14 0,
    lexer_mode 53 13 0, lexer_mode 7 13 0, lexer_mode 53 15 0, lexer_mode 53 15 0,
    lexer_mode 53 13 0, lexer_mode 53 13 1, lexer_mode 7 13 0, lexer_mode 53 13 0,
    lexer_mode 7 13 0, lexer_mode 53 13 0, lexer_mode 53 13 1, lexer_mode 5 13 0,
    lexer_mode 53 14 0, lexer_mode 7 13 0, lexer_mode 53 14 0, lexer_mode 7 13 0,
    lexer_mode 53 13 0, lexer_mode 53 13 0, lexer_mode 53 13 1, lexer_mode 53 13 0,
    lexer_mode 5 13 0, lexer_mode 53 14 0, lexer_mode 5 13 0, lexer_mode 53 13 1,
    lexer_mode 53 13 1, lexer_mode 53 15 0, lexer_mode 53 14 0, lexer_mode 53 14 0,
    lexer_mode 53 15 0, lexer_mode 53 13 0, lexer_mode 53 13 0, lexer_mode 53 13 1,
    lexer_mode 53 13 0, lexer_mode 53 14 0, lexer_mode 53 12 0, lexer_mode 53 13 0,
    lexer_mode 53 12 0, lexer_mode 53 13 0, lexer_mode 53 13 0, lexer_mode 53 13 0,
    lexer_mode 53 13 0, lexer_mode 53 14 0, lexer_mode 53 13 0, lexer_mode 53 15 0,
    lexer_mode 53 15 0, lexer_mode 7 13 0, lexer_mode 53 12 0, lexer_mode 53 14 0,
    lexer_mode 53 13 0, lexer_mode 53 13 1, lexer_mode 53 15 0, lexer_mode 53 13 0,
    lexer_mode 53 13 0, lexer_mode 53 12 0, lexer_mode 53 12 0, lexer_mode 53 13 1,
    lexer_mode 53 12 0, lexer_mode 53 12 0, lexer_mode 53 13 1, lexer_mode 53 12 0,
    lexer_mode 53 14 0, lexer_mode 53 15 0]"

definition ts_lex_modes_85 :: "TSLexerMode list" where "ts_lex_modes_85 = [
    lexer_mode 53 12 0, lexer_mode 53 15 0, lexer_mode 5 13 0, lexer_mode 53 15 0,
    lexer_mode 53 13 0, lexer_mode 53 13 1, lexer_mode 53 13 1, lexer_mode 7 13 0]"

definition ts_lex_modes :: "TSLexerMode list" where "ts_lex_modes = concat [
    ts_lex_modes_0, ts_lex_modes_1, ts_lex_modes_2, ts_lex_modes_3, ts_lex_modes_4,
    ts_lex_modes_5, ts_lex_modes_6, ts_lex_modes_7, ts_lex_modes_8, ts_lex_modes_9,
    ts_lex_modes_10, ts_lex_modes_11, ts_lex_modes_12, ts_lex_modes_13, ts_lex_modes_14,
    ts_lex_modes_15, ts_lex_modes_16, ts_lex_modes_17, ts_lex_modes_18, ts_lex_modes_19,
    ts_lex_modes_20, ts_lex_modes_21, ts_lex_modes_22, ts_lex_modes_23, ts_lex_modes_24,
    ts_lex_modes_25, ts_lex_modes_26, ts_lex_modes_27, ts_lex_modes_28, ts_lex_modes_29,
    ts_lex_modes_30, ts_lex_modes_31, ts_lex_modes_32, ts_lex_modes_33, ts_lex_modes_34,
    ts_lex_modes_35, ts_lex_modes_36, ts_lex_modes_37, ts_lex_modes_38, ts_lex_modes_39,
    ts_lex_modes_40, ts_lex_modes_41, ts_lex_modes_42, ts_lex_modes_43, ts_lex_modes_44,
    ts_lex_modes_45, ts_lex_modes_46, ts_lex_modes_47, ts_lex_modes_48, ts_lex_modes_49,
    ts_lex_modes_50, ts_lex_modes_51, ts_lex_modes_52, ts_lex_modes_53, ts_lex_modes_54,
    ts_lex_modes_55, ts_lex_modes_56, ts_lex_modes_57, ts_lex_modes_58, ts_lex_modes_59,
    ts_lex_modes_60, ts_lex_modes_61, ts_lex_modes_62, ts_lex_modes_63, ts_lex_modes_64,
    ts_lex_modes_65, ts_lex_modes_66, ts_lex_modes_67, ts_lex_modes_68, ts_lex_modes_69,
    ts_lex_modes_70, ts_lex_modes_71, ts_lex_modes_72, ts_lex_modes_73, ts_lex_modes_74,
    ts_lex_modes_75, ts_lex_modes_76, ts_lex_modes_77, ts_lex_modes_78, ts_lex_modes_79,
    ts_lex_modes_80, ts_lex_modes_81, ts_lex_modes_82, ts_lex_modes_83, ts_lex_modes_84,
    ts_lex_modes_85]"

lemmas ts_lex_modes_chunks =
  ts_lex_modes_0_def ts_lex_modes_1_def ts_lex_modes_2_def ts_lex_modes_3_def ts_lex_modes_4_def
  ts_lex_modes_5_def ts_lex_modes_6_def ts_lex_modes_7_def ts_lex_modes_8_def ts_lex_modes_9_def
  ts_lex_modes_10_def ts_lex_modes_11_def ts_lex_modes_12_def ts_lex_modes_13_def ts_lex_modes_14_def
  ts_lex_modes_15_def ts_lex_modes_16_def ts_lex_modes_17_def ts_lex_modes_18_def ts_lex_modes_19_def
  ts_lex_modes_20_def ts_lex_modes_21_def ts_lex_modes_22_def ts_lex_modes_23_def ts_lex_modes_24_def
  ts_lex_modes_25_def ts_lex_modes_26_def ts_lex_modes_27_def ts_lex_modes_28_def ts_lex_modes_29_def
  ts_lex_modes_30_def ts_lex_modes_31_def ts_lex_modes_32_def ts_lex_modes_33_def ts_lex_modes_34_def
  ts_lex_modes_35_def ts_lex_modes_36_def ts_lex_modes_37_def ts_lex_modes_38_def ts_lex_modes_39_def
  ts_lex_modes_40_def ts_lex_modes_41_def ts_lex_modes_42_def ts_lex_modes_43_def ts_lex_modes_44_def
  ts_lex_modes_45_def ts_lex_modes_46_def ts_lex_modes_47_def ts_lex_modes_48_def ts_lex_modes_49_def
  ts_lex_modes_50_def ts_lex_modes_51_def ts_lex_modes_52_def ts_lex_modes_53_def ts_lex_modes_54_def
  ts_lex_modes_55_def ts_lex_modes_56_def ts_lex_modes_57_def ts_lex_modes_58_def ts_lex_modes_59_def
  ts_lex_modes_60_def ts_lex_modes_61_def ts_lex_modes_62_def ts_lex_modes_63_def ts_lex_modes_64_def
  ts_lex_modes_65_def ts_lex_modes_66_def ts_lex_modes_67_def ts_lex_modes_68_def ts_lex_modes_69_def
  ts_lex_modes_70_def ts_lex_modes_71_def ts_lex_modes_72_def ts_lex_modes_73_def ts_lex_modes_74_def
  ts_lex_modes_75_def ts_lex_modes_76_def ts_lex_modes_77_def ts_lex_modes_78_def ts_lex_modes_79_def
  ts_lex_modes_80_def ts_lex_modes_81_def ts_lex_modes_82_def ts_lex_modes_83_def ts_lex_modes_84_def
  ts_lex_modes_85_def

end
