(* ===== verification/Mojo_External.thy ===== *)
theory Mojo_External
  imports C_Arrays Mojo_Grammar Mojo_Lex_Modes
begin

text \<open>
  The interface between the generated parser and the external scanner
  (\<^verbatim>\<open>grammars/tree-sitter-mojo/src/parser.c\<close>): the numbers of the external tokens, the symbols they
  stand for, and for each external lexical state the tokens the parser can use there.
  Definitions only.
\<close>

section \<open>External tokens\<close>

definition ts_external_token__newline :: nat where "ts_external_token__newline = 0"
definition ts_external_token__indent :: nat where "ts_external_token__indent = 1"
definition ts_external_token__dedent :: nat where "ts_external_token__dedent = 2"
definition ts_external_token_string_start :: nat where "ts_external_token_string_start = 3"
definition ts_external_token__string_content :: nat where "ts_external_token__string_content = 4"
definition ts_external_token_escape_interpolation :: nat where "ts_external_token_escape_interpolation = 5"
definition ts_external_token_string_end :: nat where "ts_external_token_string_end = 6"
definition ts_external_token_comment :: nat where "ts_external_token_comment = 7"
definition ts_external_token_RBRACK :: nat where "ts_external_token_RBRACK = 8"
definition ts_external_token_RPAREN :: nat where "ts_external_token_RPAREN = 9"
definition ts_external_token_RBRACE :: nat where "ts_external_token_RBRACE = 10"
definition ts_external_token_except :: nat where "ts_external_token_except = 11"
definition ts_external_token__mlir_backtick :: nat where "ts_external_token__mlir_backtick = 12"
definition ts_external_token__mlir_ident :: nat where "ts_external_token__mlir_ident = 13"
definition ts_external_token__mlir_number :: nat where "ts_external_token__mlir_number = 14"
definition ts_external_token_mlir_punctuation :: nat where "ts_external_token_mlir_punctuation = 15"

lemmas external_token_defs =
  ts_external_token__newline_def ts_external_token__indent_def ts_external_token__dedent_def ts_external_token_string_start_def
  ts_external_token__string_content_def ts_external_token_escape_interpolation_def ts_external_token_string_end_def ts_external_token_comment_def
  ts_external_token_RBRACK_def ts_external_token_RPAREN_def ts_external_token_RBRACE_def ts_external_token_except_def
  ts_external_token__mlir_backtick_def ts_external_token__mlir_ident_def ts_external_token__mlir_number_def ts_external_token_mlir_punctuation_def

definition ts_external_scanner_symbol_map :: "nat list" where
  "ts_external_scanner_symbol_map = designated 0 EXTERNAL_TOKEN_COUNT [
    (ts_external_token__newline, sym__newline),
    (ts_external_token__indent, sym__indent),
    (ts_external_token__dedent, sym__dedent),
    (ts_external_token_string_start, sym_string_start),
    (ts_external_token__string_content, sym__string_content),
    (ts_external_token_escape_interpolation, sym_escape_interpolation),
    (ts_external_token_string_end, sym_string_end),
    (ts_external_token_comment, sym_comment),
    (ts_external_token_RBRACK, anon_sym_RBRACK),
    (ts_external_token_RPAREN, anon_sym_RPAREN),
    (ts_external_token_RBRACE, anon_sym_RBRACE),
    (ts_external_token_except, anon_sym_except),
    (ts_external_token__mlir_backtick, sym__mlir_backtick),
    (ts_external_token__mlir_ident, sym__mlir_ident),
    (ts_external_token__mlir_number, sym__mlir_number),
    (ts_external_token_mlir_punctuation, sym_mlir_punctuation)]"

definition external_row :: "nat list \<Rightarrow> bool list" where
  "external_row ts = designated False EXTERNAL_TOKEN_COUNT (map (\<lambda>t. (t, True)) ts)"

definition ts_external_scanner_states :: "bool list list" where
  "ts_external_scanner_states = designated (external_row []) 23 [
    (1, external_row [ts_external_token__newline, ts_external_token__indent, ts_external_token__dedent,
       ts_external_token_string_start, ts_external_token__string_content, ts_external_token_escape_interpolation,
       ts_external_token_string_end, ts_external_token_comment, ts_external_token_RBRACK,
       ts_external_token_RPAREN, ts_external_token_RBRACE, ts_external_token_except,
       ts_external_token__mlir_backtick, ts_external_token__mlir_ident, ts_external_token__mlir_number,
       ts_external_token_mlir_punctuation]),
    (2, external_row [ts_external_token_string_start, ts_external_token_comment]),
    (3, external_row [ts_external_token__dedent, ts_external_token_string_start, ts_external_token_comment]),
    (4, external_row [ts_external_token__newline, ts_external_token__indent, ts_external_token_string_start,
       ts_external_token_comment]),
    (5, external_row [ts_external_token__newline, ts_external_token_string_start, ts_external_token_comment]),
    (6, external_row [ts_external_token_string_start, ts_external_token_comment, ts_external_token_RBRACK]),
    (7, external_row [ts_external_token_string_start, ts_external_token_comment, ts_external_token_RPAREN]),
    (8, external_row [ts_external_token_string_start, ts_external_token_comment, ts_external_token_RBRACE]),
    (9, external_row [ts_external_token_string_start, ts_external_token_comment, ts_external_token_except]),
    (10, external_row [ts_external_token__dedent, ts_external_token_string_start, ts_external_token_comment,
       ts_external_token_except]),
    (11, external_row [ts_external_token__newline, ts_external_token_comment]),
    (12, external_row [ts_external_token_comment, ts_external_token_RBRACK]),
    (13, external_row [ts_external_token_comment]),
    (14, external_row [ts_external_token_comment, ts_external_token_RPAREN]),
    (15, external_row [ts_external_token_comment, ts_external_token_RBRACE]),
    (16, external_row [ts_external_token_comment, ts_external_token__mlir_backtick]),
    (17, external_row [ts_external_token__string_content, ts_external_token_escape_interpolation, ts_external_token_string_end,
       ts_external_token_comment]),
    (18, external_row [ts_external_token_comment, ts_external_token_except]),
    (19, external_row [ts_external_token_comment, ts_external_token__mlir_backtick, ts_external_token__mlir_ident,
       ts_external_token__mlir_number, ts_external_token_mlir_punctuation]),
    (20, external_row [ts_external_token__dedent, ts_external_token_comment]),
    (21, external_row [ts_external_token__newline, ts_external_token__indent, ts_external_token_comment]),
    (22, external_row [ts_external_token__indent, ts_external_token_comment])]"

end
