(* ===== verification/Mojo_Lex_Mode_Proofs.thy ===== *)
theory Mojo_Lex_Mode_Proofs
  imports Mojo_Lex_Modes
begin

text \<open>
  Every entry of \<open>ts_lex_modes\<close> names lexical states that exist, checked block by block.
\<close>

section \<open>Lexical states\<close>

definition lexical_starts :: "nat set" where
  "lexical_starts = {0, 3, 4, 5, 6, 7, 8, 9, 10, 12, 13, 14, 15, 53, 54}"

definition mode_ok :: "TSLexerMode \<Rightarrow> bool" where
  "mode_ok m \<longleftrightarrow> lex_state m \<in> lexical_starts \<and> 1 < external_lex_state m \<and>
     external_lex_state m < 23 \<and> reserved_word_set_id m < 34"

lemma mode_ok_lexer_mode:
  "mode_ok (lexer_mode a b c) \<longleftrightarrow> a \<in> lexical_starts \<and> 1 < b \<and> b < 23 \<and> c < 34"
  by (simp add: mode_ok_def lexer_mode_def)

lemma lexical_starts_mem:
  "0 \<in> lexical_starts"
  "3 \<in> lexical_starts"
  "4 \<in> lexical_starts"
  "5 \<in> lexical_starts"
  "6 \<in> lexical_starts"
  "7 \<in> lexical_starts"
  "8 \<in> lexical_starts"
  "9 \<in> lexical_starts"
  "10 \<in> lexical_starts"
  "12 \<in> lexical_starts"
  "13 \<in> lexical_starts"
  "14 \<in> lexical_starts"
  "15 \<in> lexical_starts"
  "53 \<in> lexical_starts"
  "54 \<in> lexical_starts"
  by (simp_all add: lexical_starts_def)

lemmas mode_check = mode_ok_lexer_mode lexical_starts_mem

section \<open>The blocks of the table\<close>

lemma ts_lex_modes_0_split: "ts_lex_modes_0 = lexer_mode 0 1 0 # tl ts_lex_modes_0"
  by (simp add: ts_lex_modes_0_def)

lemma ts_lex_modes_0_ok: "list_all mode_ok (tl ts_lex_modes_0) \<and> length ts_lex_modes_0 = 150"
  unfolding ts_lex_modes_0_def by (simp add: mode_check)

lemma ts_lex_modes_1_ok: "list_all mode_ok ts_lex_modes_1 \<and> length ts_lex_modes_1 = 150"
  unfolding ts_lex_modes_1_def by (simp add: mode_check)

lemma ts_lex_modes_2_ok: "list_all mode_ok ts_lex_modes_2 \<and> length ts_lex_modes_2 = 150"
  unfolding ts_lex_modes_2_def by (simp add: mode_check)

lemma ts_lex_modes_3_ok: "list_all mode_ok ts_lex_modes_3 \<and> length ts_lex_modes_3 = 150"
  unfolding ts_lex_modes_3_def by (simp add: mode_check)

lemma ts_lex_modes_4_ok: "list_all mode_ok ts_lex_modes_4 \<and> length ts_lex_modes_4 = 150"
  unfolding ts_lex_modes_4_def by (simp add: mode_check)

lemma ts_lex_modes_5_ok: "list_all mode_ok ts_lex_modes_5 \<and> length ts_lex_modes_5 = 150"
  unfolding ts_lex_modes_5_def by (simp add: mode_check)

lemma ts_lex_modes_6_ok: "list_all mode_ok ts_lex_modes_6 \<and> length ts_lex_modes_6 = 150"
  unfolding ts_lex_modes_6_def by (simp add: mode_check)

lemma ts_lex_modes_7_ok: "list_all mode_ok ts_lex_modes_7 \<and> length ts_lex_modes_7 = 150"
  unfolding ts_lex_modes_7_def by (simp add: mode_check)

lemma ts_lex_modes_8_ok: "list_all mode_ok ts_lex_modes_8 \<and> length ts_lex_modes_8 = 150"
  unfolding ts_lex_modes_8_def by (simp add: mode_check)

lemma ts_lex_modes_9_ok: "list_all mode_ok ts_lex_modes_9 \<and> length ts_lex_modes_9 = 150"
  unfolding ts_lex_modes_9_def by (simp add: mode_check)

lemma ts_lex_modes_10_ok: "list_all mode_ok ts_lex_modes_10 \<and> length ts_lex_modes_10 = 150"
  unfolding ts_lex_modes_10_def by (simp add: mode_check)

lemma ts_lex_modes_11_ok: "list_all mode_ok ts_lex_modes_11 \<and> length ts_lex_modes_11 = 150"
  unfolding ts_lex_modes_11_def by (simp add: mode_check)

lemma ts_lex_modes_12_ok: "list_all mode_ok ts_lex_modes_12 \<and> length ts_lex_modes_12 = 150"
  unfolding ts_lex_modes_12_def by (simp add: mode_check)

lemma ts_lex_modes_13_ok: "list_all mode_ok ts_lex_modes_13 \<and> length ts_lex_modes_13 = 150"
  unfolding ts_lex_modes_13_def by (simp add: mode_check)

lemma ts_lex_modes_14_ok: "list_all mode_ok ts_lex_modes_14 \<and> length ts_lex_modes_14 = 150"
  unfolding ts_lex_modes_14_def by (simp add: mode_check)

lemma ts_lex_modes_15_ok: "list_all mode_ok ts_lex_modes_15 \<and> length ts_lex_modes_15 = 150"
  unfolding ts_lex_modes_15_def by (simp add: mode_check)

lemma ts_lex_modes_16_ok: "list_all mode_ok ts_lex_modes_16 \<and> length ts_lex_modes_16 = 150"
  unfolding ts_lex_modes_16_def by (simp add: mode_check)

lemma ts_lex_modes_17_ok: "list_all mode_ok ts_lex_modes_17 \<and> length ts_lex_modes_17 = 150"
  unfolding ts_lex_modes_17_def by (simp add: mode_check)

lemma ts_lex_modes_18_ok: "list_all mode_ok ts_lex_modes_18 \<and> length ts_lex_modes_18 = 150"
  unfolding ts_lex_modes_18_def by (simp add: mode_check)

lemma ts_lex_modes_19_ok: "list_all mode_ok ts_lex_modes_19 \<and> length ts_lex_modes_19 = 150"
  unfolding ts_lex_modes_19_def by (simp add: mode_check)

lemma ts_lex_modes_20_ok: "list_all mode_ok ts_lex_modes_20 \<and> length ts_lex_modes_20 = 150"
  unfolding ts_lex_modes_20_def by (simp add: mode_check)

lemma ts_lex_modes_21_ok: "list_all mode_ok ts_lex_modes_21 \<and> length ts_lex_modes_21 = 150"
  unfolding ts_lex_modes_21_def by (simp add: mode_check)

lemma ts_lex_modes_22_ok: "list_all mode_ok ts_lex_modes_22 \<and> length ts_lex_modes_22 = 150"
  unfolding ts_lex_modes_22_def by (simp add: mode_check)

lemma ts_lex_modes_23_ok: "list_all mode_ok ts_lex_modes_23 \<and> length ts_lex_modes_23 = 150"
  unfolding ts_lex_modes_23_def by (simp add: mode_check)

lemma ts_lex_modes_24_ok: "list_all mode_ok ts_lex_modes_24 \<and> length ts_lex_modes_24 = 150"
  unfolding ts_lex_modes_24_def by (simp add: mode_check)

lemma ts_lex_modes_25_ok: "list_all mode_ok ts_lex_modes_25 \<and> length ts_lex_modes_25 = 150"
  unfolding ts_lex_modes_25_def by (simp add: mode_check)

lemma ts_lex_modes_26_ok: "list_all mode_ok ts_lex_modes_26 \<and> length ts_lex_modes_26 = 150"
  unfolding ts_lex_modes_26_def by (simp add: mode_check)

lemma ts_lex_modes_27_ok: "list_all mode_ok ts_lex_modes_27 \<and> length ts_lex_modes_27 = 150"
  unfolding ts_lex_modes_27_def by (simp add: mode_check)

lemma ts_lex_modes_28_ok: "list_all mode_ok ts_lex_modes_28 \<and> length ts_lex_modes_28 = 150"
  unfolding ts_lex_modes_28_def by (simp add: mode_check)

lemma ts_lex_modes_29_ok: "list_all mode_ok ts_lex_modes_29 \<and> length ts_lex_modes_29 = 150"
  unfolding ts_lex_modes_29_def by (simp add: mode_check)

lemma ts_lex_modes_30_ok: "list_all mode_ok ts_lex_modes_30 \<and> length ts_lex_modes_30 = 150"
  unfolding ts_lex_modes_30_def by (simp add: mode_check)

lemma ts_lex_modes_31_ok: "list_all mode_ok ts_lex_modes_31 \<and> length ts_lex_modes_31 = 150"
  unfolding ts_lex_modes_31_def by (simp add: mode_check)

lemma ts_lex_modes_32_ok: "list_all mode_ok ts_lex_modes_32 \<and> length ts_lex_modes_32 = 150"
  unfolding ts_lex_modes_32_def by (simp add: mode_check)

lemma ts_lex_modes_33_ok: "list_all mode_ok ts_lex_modes_33 \<and> length ts_lex_modes_33 = 150"
  unfolding ts_lex_modes_33_def by (simp add: mode_check)

lemma ts_lex_modes_34_ok: "list_all mode_ok ts_lex_modes_34 \<and> length ts_lex_modes_34 = 150"
  unfolding ts_lex_modes_34_def by (simp add: mode_check)

lemma ts_lex_modes_35_ok: "list_all mode_ok ts_lex_modes_35 \<and> length ts_lex_modes_35 = 150"
  unfolding ts_lex_modes_35_def by (simp add: mode_check)

lemma ts_lex_modes_36_ok: "list_all mode_ok ts_lex_modes_36 \<and> length ts_lex_modes_36 = 150"
  unfolding ts_lex_modes_36_def by (simp add: mode_check)

lemma ts_lex_modes_37_ok: "list_all mode_ok ts_lex_modes_37 \<and> length ts_lex_modes_37 = 150"
  unfolding ts_lex_modes_37_def by (simp add: mode_check)

lemma ts_lex_modes_38_ok: "list_all mode_ok ts_lex_modes_38 \<and> length ts_lex_modes_38 = 150"
  unfolding ts_lex_modes_38_def by (simp add: mode_check)

lemma ts_lex_modes_39_ok: "list_all mode_ok ts_lex_modes_39 \<and> length ts_lex_modes_39 = 150"
  unfolding ts_lex_modes_39_def by (simp add: mode_check)

lemma ts_lex_modes_40_ok: "list_all mode_ok ts_lex_modes_40 \<and> length ts_lex_modes_40 = 150"
  unfolding ts_lex_modes_40_def by (simp add: mode_check)

lemma ts_lex_modes_41_ok: "list_all mode_ok ts_lex_modes_41 \<and> length ts_lex_modes_41 = 150"
  unfolding ts_lex_modes_41_def by (simp add: mode_check)

lemma ts_lex_modes_42_ok: "list_all mode_ok ts_lex_modes_42 \<and> length ts_lex_modes_42 = 150"
  unfolding ts_lex_modes_42_def by (simp add: mode_check)

lemma ts_lex_modes_43_ok: "list_all mode_ok ts_lex_modes_43 \<and> length ts_lex_modes_43 = 150"
  unfolding ts_lex_modes_43_def by (simp add: mode_check)

lemma ts_lex_modes_44_ok: "list_all mode_ok ts_lex_modes_44 \<and> length ts_lex_modes_44 = 150"
  unfolding ts_lex_modes_44_def by (simp add: mode_check)

lemma ts_lex_modes_45_ok: "list_all mode_ok ts_lex_modes_45 \<and> length ts_lex_modes_45 = 150"
  unfolding ts_lex_modes_45_def by (simp add: mode_check)

lemma ts_lex_modes_46_ok: "list_all mode_ok ts_lex_modes_46 \<and> length ts_lex_modes_46 = 150"
  unfolding ts_lex_modes_46_def by (simp add: mode_check)

lemma ts_lex_modes_47_ok: "list_all mode_ok ts_lex_modes_47 \<and> length ts_lex_modes_47 = 150"
  unfolding ts_lex_modes_47_def by (simp add: mode_check)

lemma ts_lex_modes_48_ok: "list_all mode_ok ts_lex_modes_48 \<and> length ts_lex_modes_48 = 150"
  unfolding ts_lex_modes_48_def by (simp add: mode_check)

lemma ts_lex_modes_49_ok: "list_all mode_ok ts_lex_modes_49 \<and> length ts_lex_modes_49 = 150"
  unfolding ts_lex_modes_49_def by (simp add: mode_check)

lemma ts_lex_modes_50_ok: "list_all mode_ok ts_lex_modes_50 \<and> length ts_lex_modes_50 = 150"
  unfolding ts_lex_modes_50_def by (simp add: mode_check)

lemma ts_lex_modes_51_ok: "list_all mode_ok ts_lex_modes_51 \<and> length ts_lex_modes_51 = 150"
  unfolding ts_lex_modes_51_def by (simp add: mode_check)

lemma ts_lex_modes_52_ok: "list_all mode_ok ts_lex_modes_52 \<and> length ts_lex_modes_52 = 150"
  unfolding ts_lex_modes_52_def by (simp add: mode_check)

lemma ts_lex_modes_53_ok: "list_all mode_ok ts_lex_modes_53 \<and> length ts_lex_modes_53 = 150"
  unfolding ts_lex_modes_53_def by (simp add: mode_check)

lemma ts_lex_modes_54_ok: "list_all mode_ok ts_lex_modes_54 \<and> length ts_lex_modes_54 = 150"
  unfolding ts_lex_modes_54_def by (simp add: mode_check)

lemma ts_lex_modes_55_ok: "list_all mode_ok ts_lex_modes_55 \<and> length ts_lex_modes_55 = 150"
  unfolding ts_lex_modes_55_def by (simp add: mode_check)

lemma ts_lex_modes_56_ok: "list_all mode_ok ts_lex_modes_56 \<and> length ts_lex_modes_56 = 150"
  unfolding ts_lex_modes_56_def by (simp add: mode_check)

lemma ts_lex_modes_57_ok: "list_all mode_ok ts_lex_modes_57 \<and> length ts_lex_modes_57 = 150"
  unfolding ts_lex_modes_57_def by (simp add: mode_check)

lemma ts_lex_modes_58_ok: "list_all mode_ok ts_lex_modes_58 \<and> length ts_lex_modes_58 = 150"
  unfolding ts_lex_modes_58_def by (simp add: mode_check)

lemma ts_lex_modes_59_ok: "list_all mode_ok ts_lex_modes_59 \<and> length ts_lex_modes_59 = 150"
  unfolding ts_lex_modes_59_def by (simp add: mode_check)

lemma ts_lex_modes_60_ok: "list_all mode_ok ts_lex_modes_60 \<and> length ts_lex_modes_60 = 150"
  unfolding ts_lex_modes_60_def by (simp add: mode_check)

lemma ts_lex_modes_61_ok: "list_all mode_ok ts_lex_modes_61 \<and> length ts_lex_modes_61 = 150"
  unfolding ts_lex_modes_61_def by (simp add: mode_check)

lemma ts_lex_modes_62_ok: "list_all mode_ok ts_lex_modes_62 \<and> length ts_lex_modes_62 = 150"
  unfolding ts_lex_modes_62_def by (simp add: mode_check)

lemma ts_lex_modes_63_ok: "list_all mode_ok ts_lex_modes_63 \<and> length ts_lex_modes_63 = 150"
  unfolding ts_lex_modes_63_def by (simp add: mode_check)

lemma ts_lex_modes_64_ok: "list_all mode_ok ts_lex_modes_64 \<and> length ts_lex_modes_64 = 150"
  unfolding ts_lex_modes_64_def by (simp add: mode_check)

lemma ts_lex_modes_65_ok: "list_all mode_ok ts_lex_modes_65 \<and> length ts_lex_modes_65 = 150"
  unfolding ts_lex_modes_65_def by (simp add: mode_check)

lemma ts_lex_modes_66_ok: "list_all mode_ok ts_lex_modes_66 \<and> length ts_lex_modes_66 = 150"
  unfolding ts_lex_modes_66_def by (simp add: mode_check)

lemma ts_lex_modes_67_ok: "list_all mode_ok ts_lex_modes_67 \<and> length ts_lex_modes_67 = 150"
  unfolding ts_lex_modes_67_def by (simp add: mode_check)

lemma ts_lex_modes_68_ok: "list_all mode_ok ts_lex_modes_68 \<and> length ts_lex_modes_68 = 150"
  unfolding ts_lex_modes_68_def by (simp add: mode_check)

lemma ts_lex_modes_69_ok: "list_all mode_ok ts_lex_modes_69 \<and> length ts_lex_modes_69 = 150"
  unfolding ts_lex_modes_69_def by (simp add: mode_check)

lemma ts_lex_modes_70_ok: "list_all mode_ok ts_lex_modes_70 \<and> length ts_lex_modes_70 = 150"
  unfolding ts_lex_modes_70_def by (simp add: mode_check)

lemma ts_lex_modes_71_ok: "list_all mode_ok ts_lex_modes_71 \<and> length ts_lex_modes_71 = 150"
  unfolding ts_lex_modes_71_def by (simp add: mode_check)

lemma ts_lex_modes_72_ok: "list_all mode_ok ts_lex_modes_72 \<and> length ts_lex_modes_72 = 150"
  unfolding ts_lex_modes_72_def by (simp add: mode_check)

lemma ts_lex_modes_73_ok: "list_all mode_ok ts_lex_modes_73 \<and> length ts_lex_modes_73 = 150"
  unfolding ts_lex_modes_73_def by (simp add: mode_check)

lemma ts_lex_modes_74_ok: "list_all mode_ok ts_lex_modes_74 \<and> length ts_lex_modes_74 = 150"
  unfolding ts_lex_modes_74_def by (simp add: mode_check)

lemma ts_lex_modes_75_ok: "list_all mode_ok ts_lex_modes_75 \<and> length ts_lex_modes_75 = 150"
  unfolding ts_lex_modes_75_def by (simp add: mode_check)

lemma ts_lex_modes_76_ok: "list_all mode_ok ts_lex_modes_76 \<and> length ts_lex_modes_76 = 150"
  unfolding ts_lex_modes_76_def by (simp add: mode_check)

lemma ts_lex_modes_77_ok: "list_all mode_ok ts_lex_modes_77 \<and> length ts_lex_modes_77 = 150"
  unfolding ts_lex_modes_77_def by (simp add: mode_check)

lemma ts_lex_modes_78_ok: "list_all mode_ok ts_lex_modes_78 \<and> length ts_lex_modes_78 = 150"
  unfolding ts_lex_modes_78_def by (simp add: mode_check)

lemma ts_lex_modes_79_ok: "list_all mode_ok ts_lex_modes_79 \<and> length ts_lex_modes_79 = 150"
  unfolding ts_lex_modes_79_def by (simp add: mode_check)

lemma ts_lex_modes_80_ok: "list_all mode_ok ts_lex_modes_80 \<and> length ts_lex_modes_80 = 150"
  unfolding ts_lex_modes_80_def by (simp add: mode_check)

lemma ts_lex_modes_81_ok: "list_all mode_ok ts_lex_modes_81 \<and> length ts_lex_modes_81 = 150"
  unfolding ts_lex_modes_81_def by (simp add: mode_check)

lemma ts_lex_modes_82_ok: "list_all mode_ok ts_lex_modes_82 \<and> length ts_lex_modes_82 = 150"
  unfolding ts_lex_modes_82_def by (simp add: mode_check)

lemma ts_lex_modes_83_ok: "list_all mode_ok ts_lex_modes_83 \<and> length ts_lex_modes_83 = 150"
  unfolding ts_lex_modes_83_def by (simp add: mode_check)

lemma ts_lex_modes_84_ok: "list_all mode_ok ts_lex_modes_84 \<and> length ts_lex_modes_84 = 150"
  unfolding ts_lex_modes_84_def by (simp add: mode_check)

lemma ts_lex_modes_85_ok: "list_all mode_ok ts_lex_modes_85 \<and> length ts_lex_modes_85 = 8"
  unfolding ts_lex_modes_85_def by (simp add: mode_check)

lemmas ts_lex_modes_ok =
  ts_lex_modes_1_ok ts_lex_modes_2_ok ts_lex_modes_3_ok ts_lex_modes_4_ok
  ts_lex_modes_5_ok ts_lex_modes_6_ok ts_lex_modes_7_ok ts_lex_modes_8_ok
  ts_lex_modes_9_ok ts_lex_modes_10_ok ts_lex_modes_11_ok ts_lex_modes_12_ok
  ts_lex_modes_13_ok ts_lex_modes_14_ok ts_lex_modes_15_ok ts_lex_modes_16_ok
  ts_lex_modes_17_ok ts_lex_modes_18_ok ts_lex_modes_19_ok ts_lex_modes_20_ok
  ts_lex_modes_21_ok ts_lex_modes_22_ok ts_lex_modes_23_ok ts_lex_modes_24_ok
  ts_lex_modes_25_ok ts_lex_modes_26_ok ts_lex_modes_27_ok ts_lex_modes_28_ok
  ts_lex_modes_29_ok ts_lex_modes_30_ok ts_lex_modes_31_ok ts_lex_modes_32_ok
  ts_lex_modes_33_ok ts_lex_modes_34_ok ts_lex_modes_35_ok ts_lex_modes_36_ok
  ts_lex_modes_37_ok ts_lex_modes_38_ok ts_lex_modes_39_ok ts_lex_modes_40_ok
  ts_lex_modes_41_ok ts_lex_modes_42_ok ts_lex_modes_43_ok ts_lex_modes_44_ok
  ts_lex_modes_45_ok ts_lex_modes_46_ok ts_lex_modes_47_ok ts_lex_modes_48_ok
  ts_lex_modes_49_ok ts_lex_modes_50_ok ts_lex_modes_51_ok ts_lex_modes_52_ok
  ts_lex_modes_53_ok ts_lex_modes_54_ok ts_lex_modes_55_ok ts_lex_modes_56_ok
  ts_lex_modes_57_ok ts_lex_modes_58_ok ts_lex_modes_59_ok ts_lex_modes_60_ok
  ts_lex_modes_61_ok ts_lex_modes_62_ok ts_lex_modes_63_ok ts_lex_modes_64_ok
  ts_lex_modes_65_ok ts_lex_modes_66_ok ts_lex_modes_67_ok ts_lex_modes_68_ok
  ts_lex_modes_69_ok ts_lex_modes_70_ok ts_lex_modes_71_ok ts_lex_modes_72_ok
  ts_lex_modes_73_ok ts_lex_modes_74_ok ts_lex_modes_75_ok ts_lex_modes_76_ok
  ts_lex_modes_77_ok ts_lex_modes_78_ok ts_lex_modes_79_ok ts_lex_modes_80_ok
  ts_lex_modes_81_ok ts_lex_modes_82_ok ts_lex_modes_83_ok ts_lex_modes_84_ok
  ts_lex_modes_85_ok

section \<open>The table\<close>

lemma length_ts_lex_modes: "length ts_lex_modes = STATE_COUNT"
  unfolding ts_lex_modes_def
  by (simp add: ts_lex_modes_ok ts_lex_modes_0_ok STATE_COUNT_def)

lemma ts_lex_modes_tl: "list_all mode_ok (tl ts_lex_modes)"
  unfolding ts_lex_modes_def
  by (subst ts_lex_modes_0_split) (simp add: ts_lex_modes_ok ts_lex_modes_0_ok)

lemma ts_lex_modes_hd: "ts_lex_modes ! 0 = lexer_mode 0 1 0"
  unfolding ts_lex_modes_def by (subst ts_lex_modes_0_split) simp

lemma ts_lex_modes_nth: "0 < s \<Longrightarrow> s < STATE_COUNT \<Longrightarrow> mode_ok (ts_lex_modes ! s)"
  using ts_lex_modes_tl length_ts_lex_modes
  by (cases s) (auto simp: list_all_length nth_tl)

end
