(* ===== verification/Mojo_Primary_States.thy ===== *)
theory Mojo_Primary_States
  imports C_Arrays Mojo_Lex_Modes
begin

text \<open>
  The table \<open>ts_primary_state_ids\<close> of \<^verbatim>\<open>grammars/tree-sitter-mojo/src/parser.c\<close>: for each parse state, in
  order, the first state with the same items. Definitions only; the table is split into blocks of
  150 lines.
\<close>

section \<open>The table\<close>

definition ts_primary_state_ids_0 :: "nat list" where "ts_primary_state_ids_0 = [
    0, 1, 2, 3, 4, 5, 6, 7, 8, 9, 10, 11, 12, 13, 14, 15, 16, 17, 18, 19, 20, 21, 22, 23, 24, 25,
    26, 27, 28, 29, 30, 31, 32, 33, 34, 35, 36, 37, 38, 39, 40, 41, 42, 43, 44, 45, 46, 47, 48, 49,
    50, 51, 52, 53, 54, 55, 56, 57, 58, 59, 60, 61, 62, 63, 64, 65, 2, 67, 68, 69, 70, 71, 72, 73,
    74, 75, 76, 77, 78, 79, 80, 81, 82, 83, 84, 85, 86, 87, 88, 89, 90, 91, 92, 93, 94, 95, 96, 97,
    98, 99, 100, 101, 102, 103, 104, 105, 106, 107, 108, 109, 110, 111, 112, 113, 114, 115, 116,
    117, 118, 119, 120, 121, 122, 123, 124, 125, 126, 127, 128, 129, 130, 131, 132, 133, 134, 135,
    136, 137, 138, 139, 140, 141, 142, 143, 144, 145, 146, 147, 148, 149]"

definition ts_primary_state_ids_1 :: "nat list" where "ts_primary_state_ids_1 = [
    150, 151, 152, 153, 154, 155, 156, 157, 158, 159, 160, 161, 162, 163, 164, 165, 166, 167, 168,
    169, 170, 171, 172, 173, 174, 175, 176, 177, 178, 179, 180, 181, 182, 183, 184, 185, 186, 187,
    188, 189, 190, 191, 192, 193, 194, 195, 196, 197, 198, 199, 200, 201, 202, 203, 204, 205, 206,
    207, 208, 209, 210, 211, 212, 213, 214, 215, 216, 217, 218, 219, 220, 221, 222, 223, 224, 225,
    226, 227, 228, 229, 230, 231, 232, 233, 234, 235, 236, 237, 238, 239, 240, 241, 242, 243, 244,
    245, 246, 247, 248, 249, 250, 251, 252, 253, 254, 255, 256, 257, 258, 259, 260, 261, 262, 263,
    264, 265, 266, 267, 268, 269, 270, 271, 272, 273, 274, 275, 276, 277, 278, 279, 280, 281, 282,
    283, 284, 285, 286, 287, 288, 289, 290, 291, 292, 293, 294, 295, 296, 297, 298, 299]"

definition ts_primary_state_ids_2 :: "nat list" where "ts_primary_state_ids_2 = [
    300, 301, 302, 303, 304, 305, 306, 307, 308, 309, 310, 311, 312, 313, 314, 315, 316, 317, 318,
    319, 320, 321, 322, 323, 324, 325, 326, 327, 328, 329, 330, 331, 332, 333, 334, 335, 336, 337,
    338, 339, 340, 341, 342, 343, 344, 345, 346, 347, 348, 349, 350, 351, 352, 353, 354, 355, 356,
    357, 358, 359, 360, 361, 362, 363, 364, 365, 366, 367, 368, 369, 370, 371, 372, 373, 374, 375,
    376, 377, 378, 379, 380, 381, 382, 383, 384, 385, 386, 387, 388, 389, 390, 391, 392, 393, 394,
    395, 396, 397, 398, 399, 400, 401, 402, 403, 404, 405, 406, 407, 408, 409, 410, 411, 412, 413,
    414, 415, 416, 417, 418, 419, 420, 421, 422, 423, 424, 425, 426, 427, 428, 429, 430, 431, 432,
    433, 434, 435, 436, 437, 438, 439, 440, 441, 442, 443, 444, 445, 446, 447, 448, 449]"

definition ts_primary_state_ids_3 :: "nat list" where "ts_primary_state_ids_3 = [
    450, 451, 452, 453, 454, 455, 456, 457, 458, 459, 460, 461, 462, 463, 3, 5, 6, 7, 8, 9, 10, 11,
    12, 13, 14, 15, 16, 17, 18, 19, 20, 21, 22, 23, 24, 25, 26, 27, 28, 29, 30, 31, 32, 33, 34, 35,
    36, 37, 38, 39, 41, 42, 43, 44, 45, 46, 47, 48, 49, 50, 51, 52, 53, 54, 55, 56, 57, 58, 59, 60,
    63, 64, 65, 4, 67, 68, 69, 70, 71, 72, 73, 74, 75, 76, 77, 78, 79, 80, 81, 82, 83, 84, 85, 86,
    87, 88, 89, 90, 91, 94, 95, 96, 97, 98, 99, 100, 101, 102, 103, 104, 105, 106, 107, 108, 109,
    110, 111, 112, 113, 114, 115, 116, 117, 118, 119, 120, 121, 122, 123, 124, 125, 126, 127, 129,
    130, 131, 132, 133, 134, 135, 136, 137, 138, 139, 140, 141, 142, 143, 144, 145]"

definition ts_primary_state_ids_4 :: "nat list" where "ts_primary_state_ids_4 = [
    146, 147, 148, 149, 150, 151, 152, 153, 154, 155, 156, 157, 158, 159, 160, 161, 162, 163, 164,
    165, 166, 167, 168, 169, 170, 171, 172, 173, 174, 175, 176, 177, 178, 179, 180, 181, 182, 183,
    184, 185, 186, 187, 188, 189, 190, 191, 192, 193, 194, 195, 196, 197, 198, 199, 200, 201, 202,
    203, 204, 205, 206, 207, 208, 209, 210, 211, 212, 213, 214, 215, 216, 217, 218, 219, 220, 221,
    222, 223, 224, 225, 226, 227, 228, 229, 230, 231, 232, 233, 234, 235, 236, 237, 238, 239, 240,
    241, 242, 243, 244, 245, 246, 247, 248, 249, 250, 251, 252, 253, 254, 255, 256, 257, 258, 259,
    260, 261, 262, 263, 264, 265, 266, 267, 268, 269, 270, 271, 272, 273, 274, 275, 276, 277, 278,
    279, 280, 281, 282, 283, 284, 285, 286, 287, 288, 289, 290, 291, 292, 293, 294, 295]"

definition ts_primary_state_ids_5 :: "nat list" where "ts_primary_state_ids_5 = [
    296, 297, 298, 299, 300, 301, 302, 303, 304, 305, 306, 307, 308, 309, 310, 311, 312, 313, 314,
    315, 316, 317, 318, 319, 320, 321, 322, 323, 324, 325, 326, 327, 328, 329, 330, 331, 332, 333,
    334, 335, 336, 337, 338, 339, 340, 341, 342, 343, 344, 345, 346, 347, 348, 349, 350, 351, 352,
    353, 354, 355, 356, 357, 358, 359, 360, 361, 362, 363, 364, 365, 366, 367, 368, 369, 370, 371,
    372, 373, 374, 375, 376, 377, 378, 379, 380, 381, 382, 383, 384, 385, 386, 387, 388, 389, 390,
    391, 392, 393, 394, 395, 396, 397, 398, 399, 400, 401, 402, 403, 404, 405, 406, 407, 408, 409,
    410, 411, 412, 413, 414, 415, 416, 417, 418, 419, 420, 421, 422, 423, 424, 425, 426, 427, 428,
    429, 430, 431, 432, 433, 434, 435, 436, 437, 438, 439, 440, 441, 442, 443, 444, 445]"

definition ts_primary_state_ids_6 :: "nat list" where "ts_primary_state_ids_6 = [
    446, 447, 448, 449, 450, 451, 452, 453, 454, 455, 456, 457, 458, 459, 460, 461, 462, 917, 463,
    917, 920, 921, 920, 923, 923, 920, 920, 920, 920, 929, 930, 931, 932, 933, 934, 935, 936, 937,
    938, 939, 940, 941, 942, 943, 944, 945, 946, 947, 948, 949, 950, 951, 952, 953, 954, 955, 956,
    957, 958, 959, 960, 961, 962, 963, 964, 965, 966, 967, 968, 966, 970, 971, 972, 973, 974, 975,
    976, 977, 978, 979, 980, 981, 982, 983, 984, 985, 986, 987, 988, 989, 990, 991, 992, 993, 994,
    995, 935, 997, 998, 942, 1000, 1001, 951, 1003, 1004, 1005, 1006, 1007, 1008, 1009, 1010, 1011,
    1012, 978, 989, 1015, 1016, 1017, 1018, 933, 1005, 1021, 1008, 1009, 983, 1011, 1026, 1027,
    984, 946, 1030, 1018, 957, 1026, 1027, 965, 1030, 1037, 988, 987, 1040, 1041, 1004, 1043, 1044,
    1040, 1046, 1041, 1048, 1043]"

definition ts_primary_state_ids_7 :: "nat list" where "ts_primary_state_ids_7 = [
    1050, 994, 1046, 1053, 995, 1055, 1056, 1053, 1058, 1059, 931, 932, 1062, 998, 1064, 1065,
    1066, 1067, 934, 1069, 1070, 945, 1072, 1073, 1056, 1075, 1076, 1077, 1078, 1079, 1066, 1081,
    1082, 930, 938, 1085, 939, 1087, 1088, 1089, 1062, 941, 1092, 1064, 1065, 1003, 990, 1067,
    1069, 944, 991, 1101, 1070, 1103, 1104, 1073, 947, 967, 1075, 974, 1110, 1076, 949, 997, 1078,
    950, 1116, 1117, 1118, 1119, 1012, 1121, 952, 1082, 1017, 1016, 929, 1072, 1085, 948, 955,
    1088, 1058, 1133, 1077, 937, 958, 1006, 1138, 1037, 961, 1087, 1142, 1010, 962, 1081, 1103,
    1104, 1148, 1117, 971, 953, 976, 977, 1154, 986, 1133, 1157, 1158, 1138, 1160, 1161, 1148,
    1044, 1101, 970, 1160, 1167, 1154, 1169, 972, 973, 992, 1173, 1169, 1021, 975, 959, 1092, 1048,
    1050, 1110, 1157, 960, 979, 940, 943, 1187, 954, 980, 1173, 964, 936, 982, 968, 1059, 1116,
    1001, 981, 1167]"

definition ts_primary_state_ids_8 :: "nat list" where "ts_primary_state_ids_8 = [
    1118, 1119, 1000, 963, 1121, 1007, 1079, 1142, 985, 1015, 1158, 1089, 1187, 956, 1214, 993,
    1055, 1161, 1218, 1219, 1220, 1219, 1222, 1223, 1224, 1225, 1226, 1227, 1228, 1229, 1230, 1231,
    1232, 1233, 1234, 1235, 1236, 1237, 1238, 1239, 1240, 1241, 1242, 1243, 1244, 1245, 1246, 1247,
    1248, 1249, 1250, 1251, 1245, 1253, 1254, 1255, 1256, 1257, 1258, 1259, 1260, 1261, 1262, 1263,
    1264, 1265, 1266, 1246, 1268, 1269, 1270, 1271, 1272, 1247, 1274, 1275, 1276, 1222, 1278, 1223,
    1280, 1281, 1282, 1249, 1284, 1285, 1286, 1287, 1288, 1289, 1290, 1291, 1224, 1250, 1294, 1295,
    1296, 1225, 1298, 1299, 1253, 1220, 1302, 1303, 1304, 1305, 1306, 1307, 1308, 1309, 1310, 1311,
    1312, 1313, 1314, 1255, 1316, 1317, 1318, 1319, 1320, 1321, 1322, 1256, 1324, 1325, 1326, 1327,
    1328, 1329, 1330, 1331, 1261, 1264, 1334, 1335, 1257, 1275, 1226, 1339, 1340, 1341, 1295, 1343,
    1305, 1345, 1346, 1322, 1259, 1325]"

definition ts_primary_state_ids_9 :: "nat list" where "ts_primary_state_ids_9 = [
    1350, 1326, 1334, 1353, 1339, 1341, 1343, 1346, 1358, 1260, 1353, 1361, 1362, 1362, 1364, 1365,
    1366, 1367, 1368, 1365, 1370, 1371, 1372, 1373, 1374, 1375, 1367, 1377, 1378, 1379, 1380, 1381,
    1382, 1383, 1384, 1385, 1386, 1387, 1388, 1370, 1390, 1391, 1392, 1373, 1394, 1395, 1262, 1397,
    1398, 1399, 1400, 1377, 1402, 1263, 1404, 1405, 1406, 1407, 1408, 1409, 1410, 1411, 1412, 1413,
    1414, 1415, 1416, 1417, 1418, 1419, 1420, 1421, 1422, 1423, 1424, 1425, 1426, 1427, 1428, 1429,
    1430, 1431, 1432, 1433, 1434, 1435, 1266, 1437, 1438, 1379, 1440, 1441, 1380, 1443, 1444, 1381,
    1446, 1447, 1448, 1382, 1450, 1451, 1452, 1453, 1454, 1268, 1384, 1457, 1458, 1459, 1385, 1461,
    1269, 1463, 1464, 1465, 1466, 1270, 1468, 1388, 1470, 1471, 1472, 1473, 1474, 1227, 1476, 1477,
    1478, 1271, 1480, 1481, 1390, 1483, 1272, 1485, 1391, 1487, 1488, 1228, 1490, 1491, 1492, 1394,
    1494, 1495, 1276, 1497, 1498, 1230]"

definition ts_primary_state_ids_10 :: "nat list" where "ts_primary_state_ids_10 = [
    1500, 1399, 1502, 1503, 1504, 1505, 1280, 1507, 1282, 1509, 1510, 1511, 1402, 1513, 1514, 1515,
    1516, 1517, 1404, 1519, 1520, 1405, 1522, 1523, 1406, 1525, 1284, 1229, 1528, 1407, 1232, 1531,
    1233, 1533, 1242, 1408, 1248, 1537, 1410, 1254, 1540, 1411, 1542, 1265, 1412, 1545, 1274, 1285,
    1231, 1549, 1278, 1551, 1281, 1553, 1286, 1288, 1413, 1294, 1287, 1559, 1415, 1298, 1302, 1416,
    1306, 1313, 1566, 1289, 1316, 1318, 1319, 1320, 1290, 1418, 1574, 1575, 1328, 1291, 1419, 1335,
    1580, 1420, 1340, 1583, 1422, 1345, 1586, 1350, 1424, 1589, 1358, 1361, 1364, 1366, 1368, 1595,
    1371, 1372, 1374, 1375, 1600, 1378, 1383, 1386, 1387, 1605, 1606, 1392, 1608, 1395, 1397, 1611,
    1400, 1613, 1425, 1409, 1616, 1427, 1414, 1428, 1620, 1417, 1429, 1623, 1430, 1421, 1626, 1423,
    1431, 1629, 1426, 1432, 1632, 1433, 1438, 1434, 1636, 1443, 1447, 1639, 1450, 1437, 1452, 1453,
    1644, 1440, 1457, 1647, 1459, 1649]"

definition ts_primary_state_ids_11 :: "nat list" where "ts_primary_state_ids_11 = [
    1441, 1466, 1444, 1473, 1654, 1296, 1483, 1446, 1234, 1659, 1448, 1487, 1662, 1299, 1664, 1235,
    1494, 1451, 1497, 1669, 1236, 1303, 1454, 1503, 1674, 1304, 1676, 1237, 1514, 1679, 1458, 1522,
    1307, 1683, 1238, 1525, 1308, 1528, 1688, 1531, 1533, 1461, 1692, 1463, 1537, 1309, 1696, 1540,
    1464, 1542, 1465, 1701, 1545, 1310, 1549, 1468, 1553, 1470, 1559, 1709, 1471, 1566, 1472, 1713,
    1311, 1574, 1312, 1575, 1718, 1474, 1720, 1580, 1476, 1583, 1724, 1477, 1586, 1478, 1728, 1589,
    1730, 1480, 1732, 1481, 1595, 1735, 1314, 1600, 1738, 1239, 1605, 1741, 1606, 1485, 1240, 1608,
    1746, 1611, 1317, 1613, 1750, 1488, 1616, 1491, 1620, 1492, 1241, 1757, 1623, 1321, 1626, 1495,
    1629, 1763, 1632, 1636, 1766, 1767, 1639, 1498, 1770, 1324, 1649, 1773, 1500, 1502, 1327, 1654,
    1504, 1779, 1505, 1659, 1243, 1329, 1662, 1507, 1664, 1787, 1244, 1509, 1669, 1510, 1792, 1674,
    1511, 1676, 1796, 1679, 1798, 1330]"

definition ts_primary_state_ids_12 :: "nat list" where "ts_primary_state_ids_12 = [
    1683, 1513, 1688, 1803, 1692, 1331, 1515, 1696, 1516, 1517, 1701, 1811, 1519, 1520, 1709, 1815,
    1713, 1718, 1523, 1720, 1724, 1728, 1730, 1732, 1735, 1738, 1741, 1746, 1750, 1757, 1763, 1766,
    1767, 1770, 1773, 1779, 1787, 1792, 1796, 1798, 1803, 1811, 1815, 1490, 1551, 1845, 1845, 1847,
    1848, 1848, 1847, 1847, 1848, 1848, 1848, 1847, 1847, 1847, 1848, 1859, 1860, 1861, 1861, 1863,
    1863, 1865, 1860, 1863, 1863, 1869, 1865, 1860, 1860, 1863, 1860, 1869, 1869, 1877, 1865, 1865,
    1869, 1881, 1877, 1877, 1881, 1877, 1881, 1881, 1888, 1889, 1890, 1891, 1889, 1890, 1894, 1895,
    1889, 1897, 1890, 1899, 1900, 1897, 1899, 1903, 1904, 1865, 1904, 1903, 1900, 1904, 1894, 1895,
    1897, 1899, 1903, 1891, 1890, 1900, 1904, 1894, 1895, 1897, 1899, 1903, 1891, 1889, 1890, 1900,
    1904, 1894, 1895, 1897, 1899, 1903, 1891, 1889, 1890, 1900, 1904, 1894, 1895, 1897, 1899, 1903,
    1891, 1889, 1890, 1900, 1894, 1895]"

definition ts_primary_state_ids_13 :: "nat list" where "ts_primary_state_ids_13 = [
    1904, 1894, 1895, 1897, 1899, 1903, 1891, 1889, 1890, 1900, 1891, 1904, 1894, 1895, 1897, 1899,
    1903, 1891, 1889, 1890, 1900, 1904, 1894, 1895, 1897, 1899, 1903, 1891, 1889, 1890, 1900, 1904,
    1894, 1895, 1897, 1899, 1903, 1891, 1889, 1900, 1869, 1991, 1877, 1860, 1865, 1869, 1881, 1869,
    1998, 1865, 1881, 1865, 1863, 1865, 1877, 1865, 1861, 1860, 1877, 1877, 2010, 1860, 1865, 2010,
    1881, 1881, 1877, 1881, 1860, 1881, 1877, 2021, 2022, 2023, 2024, 2025, 2025, 2027, 2028, 2029,
    1998, 2031, 2032, 2033, 2034, 2027, 2036, 2037, 2023, 2024, 2040, 2028, 2033, 1861, 1881, 2037,
    2034, 2040, 2037, 2049, 2050, 1865, 2022, 2036, 2040, 2055, 2031, 2022, 2055, 2059, 2049, 2022,
    2059, 1861, 2064, 2029, 2029, 2032, 2033, 2034, 2027, 2064, 2029, 2023, 2032, 2024, 2064, 2025,
    2027, 2028, 2055, 2037, 2059, 2049, 2010, 2036, 2040, 2028, 2055, 2049, 2059, 2025, 2023, 2036,
    2031, 2032, 2033, 2034, 2024, 1877]"

definition ts_primary_state_ids_14 :: "nat list" where "ts_primary_state_ids_14 = [
    2064, 2031, 2102, 1877, 1881, 1863, 2050, 2107, 2108, 2109, 2110, 2111, 2112, 2113, 2114, 2115,
    2116, 2117, 2118, 2119, 2120, 2121, 2122, 2123, 2124, 2125, 2126, 2127, 2128, 2129, 2130, 2131,
    2132, 2133, 2134, 2135, 2136, 2137, 2138, 2139, 2140, 2141, 2142, 2143, 2144, 2145, 2146, 2147,
    2148, 2149, 2150, 2151, 2152, 2153, 2154, 2155, 2156, 2157, 2158, 2159, 2160, 2161, 2162, 2163,
    2164, 2165, 2166, 2167, 2141, 2169, 2170, 2171, 2172, 2173, 2174, 2175, 2176, 2177, 2178, 2143,
    2180, 2144, 2182, 2145, 2184, 2185, 2186, 2146, 2188, 2189, 2190, 2191, 2192, 2148, 2194, 2150,
    2156, 2197, 2198, 2110, 2200, 2201, 2173, 2157, 2158, 2174, 2175, 2207, 2208, 2178, 2159, 2211,
    2185, 2213, 2189, 2215, 2116, 2161, 2218, 2194, 2163, 2221, 2117, 2223, 2118, 2198, 2120, 2122,
    2228, 2164, 2200, 2165, 2232, 2233, 2207, 2166, 2213, 2125, 2167, 2223, 2171, 2228, 2232, 2172,
    2130, 2245, 2246, 2147, 2248, 2249]"

definition ts_primary_state_ids_15 :: "nat list" where "ts_primary_state_ids_15 = [
    2233, 2180, 2149, 2182, 2186, 2190, 2112, 2191, 2110, 2112, 2151, 2113, 2116, 2117, 2118, 2120,
    2122, 2125, 2153, 2127, 2131, 2132, 2134, 2135, 2154, 2136, 2137, 2140, 2141, 2155, 2143, 2144,
    2113, 2145, 2284, 2146, 2148, 2150, 2182, 2156, 2157, 2158, 2159, 2161, 2294, 2163, 2164, 2165,
    2166, 2167, 2186, 2171, 2172, 2173, 2174, 2190, 2175, 2178, 2191, 2185, 2310, 2189, 2194, 2198,
    2314, 2200, 2207, 2213, 2223, 2228, 2232, 2110, 2233, 2147, 2149, 2151, 2153, 2154, 2155, 2329,
    2284, 2112, 2113, 2333, 2116, 2117, 2118, 2337, 2120, 2339, 2340, 2122, 2342, 2343, 2125, 2127,
    2346, 2347, 2131, 2132, 2350, 2134, 2135, 2136, 2354, 2355, 2137, 2140, 2358, 2359, 2360, 2141,
    2143, 2363, 2144, 2365, 2145, 2367, 2146, 2369, 2148, 2150, 2156, 2373, 2374, 2375, 2376, 2157,
    2158, 2159, 2161, 2381, 2163, 2164, 2384, 2165, 2386, 2166, 2167, 2127, 2284, 2171, 2131, 2172,
    2132, 2395, 2173, 2397, 2134, 2174]"

definition ts_primary_state_ids_16 :: "nat list" where "ts_primary_state_ids_16 = [
    2400, 2107, 2175, 2403, 2178, 2135, 2406, 2185, 2408, 2189, 2194, 2198, 2412, 2200, 2207, 2213,
    2223, 2228, 2232, 2419, 2420, 2421, 2422, 2233, 2136, 2130, 2245, 2246, 2248, 2249, 2180, 2182,
    2186, 2190, 2191, 2110, 2112, 2113, 2116, 2117, 2118, 2120, 2122, 2125, 2127, 2131, 2132, 2134,
    2135, 2136, 2137, 2140, 2141, 2143, 2144, 2145, 2146, 2148, 2150, 2156, 2157, 2158, 2159, 2161,
    2163, 2164, 2165, 2166, 2167, 2171, 2172, 2173, 2174, 2175, 2178, 2185, 2189, 2194, 2198, 2200,
    2207, 2213, 2223, 2228, 2232, 2233, 2147, 2149, 2151, 2153, 2154, 2155, 2284, 2147, 2130, 2245,
    2246, 2248, 2249, 2180, 2182, 2186, 2190, 2191, 2110, 2112, 2113, 2116, 2117, 2191, 2120, 2122,
    2125, 2127, 2131, 2132, 2134, 2135, 2136, 2137, 2140, 2141, 2143, 2144, 2145, 2146, 2148, 2150,
    2156, 2157, 2158, 2159, 2161, 2163, 2164, 2165, 2166, 2167, 2171, 2172, 2173, 2174, 2175, 2178,
    2185, 2189, 2194, 2198, 2200, 2207]"

definition ts_primary_state_ids_17 :: "nat list" where "ts_primary_state_ids_17 = [
    2213, 2223, 2228, 2232, 2233, 2147, 2149, 2151, 2153, 2154, 2155, 2284, 2149, 2130, 2245, 2246,
    2248, 2249, 2180, 2182, 2186, 2190, 2191, 2110, 2112, 2113, 2116, 2117, 2118, 2120, 2122, 2125,
    2127, 2131, 2132, 2134, 2135, 2136, 2137, 2140, 2141, 2143, 2144, 2145, 2146, 2148, 2150, 2156,
    2157, 2158, 2159, 2161, 2163, 2164, 2165, 2166, 2167, 2171, 2172, 2173, 2174, 2175, 2178, 2185,
    2189, 2194, 2198, 2200, 2207, 2213, 2223, 2228, 2232, 2233, 2147, 2149, 2151, 2153, 2154, 2155,
    2284, 2151, 2130, 2245, 2246, 2248, 2249, 2180, 2182, 2186, 2190, 2191, 2110, 2112, 2113, 2116,
    2117, 2118, 2120, 2122, 2125, 2127, 2131, 2132, 2134, 2135, 2136, 2137, 2140, 2141, 2143, 2144,
    2145, 2146, 2148, 2150, 2156, 2157, 2158, 2159, 2161, 2163, 2164, 2165, 2166, 2167, 2171, 2172,
    2173, 2174, 2175, 2178, 2185, 2189, 2194, 2198, 2200, 2207, 2213, 2223, 2228, 2232, 2233, 2147,
    2149, 2151, 2153, 2154, 2155, 2284]"

definition ts_primary_state_ids_18 :: "nat list" where "ts_primary_state_ids_18 = [
    2153, 2701, 2137, 2140, 2154, 2705, 2155, 2284, 2130, 2709, 2710, 2245, 2712, 2246, 2419, 2386,
    2716, 2121, 2126, 2139, 2152, 2160, 2360, 2376, 2395, 2422, 2726, 2367, 2373, 2384, 2397, 2400,
    2115, 2162, 2169, 2177, 2726, 2421, 2705, 2710, 2740, 2201, 2138, 2381, 2403, 2406, 2408, 2412,
    2337, 2343, 2346, 2355, 2752, 2753, 2754, 2109, 2114, 2119, 2124, 2128, 2310, 2329, 2333, 2339,
    2342, 2347, 2350, 2354, 2701, 2712, 2770, 2771, 2772, 2773, 2774, 2108, 2111, 2176, 2188, 2192,
    2197, 2208, 2211, 2215, 2218, 2221, 2184, 2340, 2363, 2365, 2369, 2709, 2792, 2123, 2129, 2133,
    2359, 2797, 2245, 2770, 2248, 2249, 2771, 2246, 2180, 2130, 2752, 2245, 2246, 2753, 2248, 2248,
    2740, 2754, 2772, 2249, 2180, 2817, 2773, 2792, 2182, 2186, 2774, 2716, 2190, 2249, 2797, 2118,
    2828, 2828, 2828, 2828, 2828, 2828, 2828, 2828, 2828, 2828, 2838, 2839, 2840, 2841, 2842, 2843,
    2844, 2845, 2846, 2847, 2848, 2849]"

definition ts_primary_state_ids_19 :: "nat list" where "ts_primary_state_ids_19 = [
    2850, 2851, 2852, 2853, 2854, 2855, 2856, 2857, 2858, 2859, 2860, 2861, 2862, 2863, 2864, 2865,
    2866, 2867, 2868, 2869, 2870, 2871, 2872, 2873, 2874, 2875, 2876, 2877, 2878, 2879, 2880, 2881,
    2882, 2883, 2884, 2885, 2886, 2887, 2888, 2889, 2890, 2863, 2865, 2866, 2869, 2870, 2896, 2872,
    2898, 2899, 2876, 2879, 2881, 2882, 2885, 2886, 2906, 2907, 2890, 2909, 2896, 2898, 2899, 2906,
    2907, 2909, 2916, 2917, 2918, 2919, 2920, 2921, 2922, 2923, 2924, 2925, 2926, 2927, 2928, 2929,
    2930, 2931, 2932, 2933, 2934, 2935, 2936, 2937, 2938, 2939, 2940, 2840, 2841, 2943, 2848, 2945,
    2849, 2850, 2851, 2949, 2950, 2852, 2952, 2854, 2855, 2857, 2858, 2860, 2861, 2862, 2864, 2848,
    2867, 2868, 2871, 2873, 2874, 2875, 2968, 2878, 2880, 2883, 2884, 2973, 2887, 2888, 2889, 2863,
    2865, 2866, 2869, 2870, 2872, 2876, 2879, 2881, 2882, 2885, 2886, 2890, 2896, 2898, 2899, 2906,
    2907, 2909, 2916, 2917, 2918, 2919]"

definition ts_primary_state_ids_20 :: "nat list" where "ts_primary_state_ids_20 = [
    2920, 2921, 2922, 2923, 2925, 2926, 2927, 2928, 2929, 2930, 2931, 2932, 2933, 2934, 2935, 2936,
    2938, 2939, 2840, 2841, 2848, 2849, 2850, 2851, 2852, 2854, 2855, 2857, 2858, 2860, 3030, 2861,
    2862, 3033, 2864, 3035, 2867, 2868, 2871, 3039, 2873, 2874, 2875, 2968, 2878, 2880, 2883, 2884,
    3048, 2887, 2888, 2889, 3052, 2863, 2865, 2866, 2869, 2870, 2872, 2876, 2879, 2881, 2882, 2885,
    2886, 2890, 3066, 2896, 2898, 2899, 2906, 2907, 2909, 3073, 2916, 2917, 2918, 2919, 2920, 2921,
    2922, 2923, 2925, 2926, 2927, 3085, 2928, 2929, 2930, 2931, 2932, 2933, 2934, 2935, 2936, 2938,
    2939, 3097, 3098, 2856, 2859, 3101, 3102, 2916, 2917, 2918, 2919, 2920, 2921, 2922, 2923, 2925,
    2926, 2927, 2928, 2929, 2930, 2931, 3118, 3119, 3120, 3121, 3122, 3123, 3124, 3125, 3126, 3127,
    3128, 3129, 3130, 2849, 2850, 2851, 2852, 3135, 2840, 3137, 3138, 2841, 3140, 3141, 2842, 3143,
    3144, 3145, 3146, 3147, 3148, 3149]"

definition ts_primary_state_ids_21 :: "nat list" where "ts_primary_state_ids_21 = [
    3150, 2932, 2933, 2934, 2935, 2936, 2938, 3157, 3158, 3159, 3160, 3161, 3162, 3163, 3164, 3165,
    3166, 3167, 3168, 3169, 3170, 3171, 3172, 2854, 2855, 2857, 3176, 2858, 2860, 2861, 2862, 2864,
    3182, 3183, 3184, 3185, 2939, 3187, 2839, 3189, 3190, 3191, 2845, 3193, 3194, 3195, 2846, 2847,
    3198, 3199, 3200, 3102, 3202, 3203, 3204, 2867, 2868, 2871, 2856, 2859, 2873, 2874, 2875, 3102,
    2968, 2878, 2880, 2883, 3218, 2884, 2856, 2859, 3102, 2887, 2888, 2889, 2856, 3102, 2856, 3102,
    2856, 3102, 2856, 3102, 2856, 3102, 3102, 3237, 2840, 2841, 2839, 3203, 2877, 2848, 2849, 2850,
    2851, 2852, 3248, 2854, 2855, 2857, 2858, 2860, 2861, 2862, 2864, 2867, 2868, 2871, 2873, 2874,
    2875, 2968, 2878, 2880, 2883, 2884, 2887, 2888, 2889, 2863, 2865, 2866, 2869, 2870, 2872, 2876,
    2879, 2881, 2882, 2885, 2886, 2890, 2896, 2898, 2899, 2906, 2907, 2909, 2916, 2917, 2918, 2919,
    2920, 2921, 2922, 2923, 2925, 2926]"

definition ts_primary_state_ids_22 :: "nat list" where "ts_primary_state_ids_22 = [
    2927, 2928, 2929, 2930, 2931, 2932, 2933, 2934, 2935, 2936, 2938, 2939, 2840, 2841, 2848, 2849,
    2850, 2851, 2852, 2854, 2855, 2877, 2857, 2858, 2860, 2861, 2862, 2864, 2867, 2868, 2871, 2873,
    2874, 2875, 2968, 2878, 2880, 2883, 2884, 2887, 2888, 2889, 2863, 2865, 2866, 2869, 2870, 2872,
    2876, 2879, 2881, 2882, 2885, 2886, 2890, 2896, 2898, 2899, 2906, 2907, 2909, 2916, 2917, 2918,
    2919, 2920, 2921, 2922, 2923, 2925, 2926, 2927, 2928, 2929, 2930, 2931, 2932, 2933, 2934, 2935,
    2936, 2938, 2939, 2840, 2841, 2848, 2849, 2850, 2851, 2852, 2854, 2855, 2857, 2858, 2860, 2861,
    2862, 2864, 2867, 2868, 2871, 2873, 2874, 2875, 2968, 2878, 2880, 3407, 2883, 2884, 2887, 2888,
    2889, 2863, 2865, 2866, 2869, 2870, 2872, 2876, 2879, 2881, 2882, 2885, 2886, 2890, 2896, 2898,
    2899, 2906, 2907, 2909, 2916, 2917, 2918, 2919, 2920, 2921, 2922, 2923, 2925, 2926, 2927, 2928,
    2929, 2930, 2931, 2932, 2933, 2934]"

definition ts_primary_state_ids_23 :: "nat list" where "ts_primary_state_ids_23 = [
    2935, 2936, 2938, 2939, 2840, 2841, 2848, 2849, 2850, 2851, 2852, 3461, 2854, 2855, 2857, 2858,
    2860, 2861, 2862, 2864, 2867, 2868, 3472, 2871, 2873, 2874, 2875, 2968, 2878, 2880, 2883, 2884,
    2887, 2888, 2889, 2863, 2865, 2866, 2869, 2870, 2872, 2876, 2879, 2881, 2882, 2885, 2886, 3497,
    2890, 2896, 2898, 2899, 2906, 2907, 2909, 2916, 2917, 2918, 2919, 2920, 2921, 2922, 2923, 2925,
    2926, 2927, 2928, 2929, 2930, 2931, 2932, 2933, 2934, 2935, 2936, 2938, 2939, 3527, 2839, 3203,
    2877, 2839, 3203, 2877, 2839, 2877, 2839, 2877, 2839, 2877, 3248, 2853, 2940, 2945, 2952, 3085,
    3098, 3101, 3122, 3125, 3126, 2838, 3130, 3146, 3149, 3150, 3157, 3158, 3168, 3169, 3170, 3171,
    3189, 3194, 3198, 3199, 3200, 3204, 3237, 3407, 3461, 3472, 3497, 3527, 2924, 2937, 2943, 2949,
    3030, 3035, 3039, 3048, 3052, 3066, 3073, 3097, 3118, 3120, 3121, 3123, 3124, 3127, 3128, 3129,
    3135, 3138, 3140, 3141, 3143, 3144]"

definition ts_primary_state_ids_24 :: "nat list" where "ts_primary_state_ids_24 = [
    3145, 3147, 3148, 3159, 3160, 3161, 3162, 3163, 3164, 3165, 3166, 3167, 3176, 3182, 3183, 3184,
    3185, 3187, 3190, 3191, 3193, 3195, 3202, 3218, 2839, 2877, 2839, 2877, 2968, 3629, 3629, 3629,
    3629, 3629, 3629, 3629, 3629, 3637, 3637, 3639, 3637, 3637, 3639, 3637, 3637, 3639, 3637, 3639,
    3639, 3637, 3639, 3637, 3637, 3653, 3639, 3653, 3639, 3639, 3637, 3639, 3660, 3661, 3662, 3663,
    3664, 3665, 3666, 3667, 3668, 3669, 3668, 3669, 3672, 3673, 3674, 3673, 3674, 3677, 3672, 3679,
    3680, 3681, 3677, 3672, 3673, 3674, 3677, 3672, 3679, 3680, 3681, 3679, 3680, 3674, 3677, 3681,
    3679, 3680, 3681, 3681, 3677, 3672, 3679, 3673, 3674, 3680, 3673, 3707, 3674, 3677, 3672, 3679,
    3673, 3681, 3714, 3677, 3707, 3717, 3672, 3665, 3679, 3680, 3681, 3681, 3672, 3673, 3707, 3661,
    3673, 3674, 3679, 3677, 3674, 3672, 3679, 3677, 3680, 3681, 3738, 3680, 3681, 3674, 3673, 3707,
    3674, 3677, 3672, 3679, 3680, 3680]"

definition ts_primary_state_ids_25 :: "nat list" where "ts_primary_state_ids_25 = [
    3750, 3751, 3752, 3751, 3754, 3755, 3750, 3757, 3758, 3752, 3760, 3761, 3750, 3757, 3750, 3757,
    3758, 3761, 3751, 3752, 3761, 3771, 3772, 3754, 3755, 3751, 3752, 3751, 3752, 3754, 3761, 3781,
    3782, 3755, 3750, 3757, 3754, 3755, 3788, 3754, 3755, 3758, 3754, 3755, 3750, 3757, 3761, 3751,
    3752, 3750, 3757, 3751, 3752, 3754, 3755, 3761, 3750, 3757, 3758, 3809, 3757, 3758, 3758, 3761,
    3751, 3751, 3752, 3752, 3761, 3754, 3755, 3754, 3755, 3823, 3824, 3824, 2050, 3827, 3827, 3829,
    3829, 3831, 3832, 3829, 3834, 3835, 3823, 3834, 3835, 3835, 3824, 3841, 3831, 3832, 3831, 3845,
    3846, 3823, 3834, 3849, 3827, 3832, 3852, 2050, 3854, 3855, 3856, 3857, 3856, 3854, 3714, 3855,
    3714, 3852, 3857, 3865, 3857, 3857, 3868, 3852, 3868, 3871, 3852, 3857, 3857, 3855, 3857, 3852,
    3852, 3852, 3857, 3852, 3714, 3865, 3845, 3885, 3886, 1863, 3888, 3889, 3885, 3891, 3888, 3885,
    3885, 3849, 3896, 3888, 3888, 3899]"

definition ts_primary_state_ids_26 :: "nat list" where "ts_primary_state_ids_26 = [
    3900, 3901, 3902, 3903, 3901, 3905, 2050, 3902, 3908, 3909, 3910, 3911, 3902, 3913, 3900, 3915,
    3916, 3917, 3918, 3901, 3909, 3913, 3922, 3923, 3902, 3925, 3911, 3927, 1863, 3929, 2050, 3901,
    3925, 3933, 3911, 3845, 3889, 3849, 3845, 3939, 3903, 3941, 3849, 3922, 3923, 3945, 3946, 3947,
    3948, 3949, 3945, 3951, 3902, 3925, 3954, 3955, 3956, 3902, 3902, 3954, 3960, 3961, 3962, 3903,
    3954, 3965, 3903, 3967, 3954, 3969, 3903, 3971, 3903, 3903, 3960, 3908, 3905, 3946, 3910, 3900,
    3915, 3916, 3982, 3901, 3902, 3910, 3903, 3901, 3941, 3901, 3922, 3923, 3905, 3946, 3949, 3982,
    3901, 3997, 3998, 3999, 3999, 4001, 3999, 3998, 4004, 4005, 4006, 3997, 4008, 4009, 4005, 4011,
    4012, 4013, 4014, 4015, 3999, 4017, 4018, 4019, 3997, 4021, 4014, 3999, 4024, 4025, 4026, 3999,
    4009, 4021, 4030, 4004, 3845, 4033, 4012, 4035, 4001, 3849, 4024, 4025, 4001, 4021, 4024, 4025,
    4021, 4018, 3999, 3998, 4033, 4019]"

definition ts_primary_state_ids_27 :: "nat list" where "ts_primary_state_ids_27 = [
    4050, 3998, 4024, 4025, 3998, 4050, 4006, 3998, 3998, 3997, 3999, 4015, 4008, 4001, 4011, 3998,
    4066, 4067, 4068, 4069, 4070, 4071, 4072, 4004, 4074, 4075, 4076, 4077, 4078, 4079, 4079, 4006,
    4068, 4083, 4078, 4085, 4086, 4074, 4088, 4089, 4085, 4078, 4092, 4079, 4094, 4015, 4096, 4097,
    4085, 4099, 4100, 4097, 4075, 4085, 4076, 4092, 4106, 4078, 4108, 4097, 4075, 4085, 4086, 4113,
    4114, 4083, 4076, 4092, 4118, 4119, 4120, 4121, 4122, 4123, 4124, 4068, 4071, 4072, 4128, 4092,
    4079, 4131, 4132, 4133, 4134, 4070, 4133, 4079, 4068, 4123, 4005, 4068, 4133, 4134, 4070, 4145,
    4078, 4078, 4148, 4077, 4077, 4124, 4133, 4134, 4085, 4094, 4015, 4133, 4134, 4113, 4097, 4161,
    4133, 4134, 4145, 4075, 4076, 4133, 4134, 4134, 4134, 4171, 4171, 4118, 4097, 4012, 4176, 4177,
    4178, 4079, 4096, 4181, 4133, 4092, 4068, 4086, 4005, 4121, 4075, 4189, 4004, 4128, 4097, 4075,
    4114, 4181, 4134, 4197, 4120, 4119]"

definition ts_primary_state_ids_28 :: "nat list" where "ts_primary_state_ids_28 = [
    4134, 4201, 4202, 4161, 4120, 4114, 4078, 4097, 4075, 4076, 4092, 4068, 4079, 4078, 4097, 4075,
    4076, 4092, 4068, 4079, 4078, 4097, 4075, 4076, 4092, 4068, 4079, 4012, 4079, 4006, 4078, 4085,
    4086, 4097, 4114, 4075, 4094, 4076, 4092, 4068, 4079, 4114, 4078, 4097, 4244, 4075, 4077, 4113,
    4076, 4120, 4068, 4132, 4092, 4068, 4079, 4076, 4076, 4086, 4078, 4259, 4100, 4092, 4085, 4066,
    4086, 4197, 4085, 4267, 4097, 4092, 4148, 4108, 4075, 4070, 4085, 4085, 4134, 4131, 4076, 4085,
    4134, 4281, 4282, 4283, 4284, 4283, 4286, 4287, 4288, 4289, 4290, 4287, 4288, 4293, 4281, 4295,
    4295, 4290, 4293, 4299, 4286, 4289, 4302, 4299, 4302, 4284, 4282, 4307, 4308, 4307, 4308, 4311,
    4312, 4313, 4314, 4315, 4316, 4317, 4318, 4319, 4320, 4321, 4322, 4323, 4324, 4325, 4326, 4327,
    4328, 4329, 4330, 4331, 4332, 4333, 4334, 4335, 4336, 4337, 4338, 4339, 4340, 4341, 4342, 4343,
    4344, 4345, 4346, 4347, 4348, 4349]"

definition ts_primary_state_ids_29 :: "nat list" where "ts_primary_state_ids_29 = [
    4350, 4351, 4352, 4353, 4354, 4355, 4356, 4357, 4358, 4359, 4360, 4361, 4362, 4363, 4364, 4365,
    4366, 4367, 4368, 4369, 4370, 4371, 4372, 4373, 4374, 4375, 4376, 4377, 4378, 4379, 4380, 4381,
    4382, 4383, 4384, 4385, 4386, 4387, 4388, 4389, 4390, 4391, 4392, 4393, 4394, 4395, 4396, 4397,
    4398, 4399, 4400, 4401, 4402, 4403, 4404, 4405, 4406, 4407, 4408, 4409, 4410, 4411, 4412, 4413,
    4414, 4415, 4416, 4417, 4418, 4419, 4420, 4421, 4422, 4423, 4424, 4425, 4426, 4427, 4428, 4429,
    4430, 4431, 4432, 4433, 4434, 4435, 4436, 4437, 4438, 4439, 4440, 4441, 4442, 4443, 4444, 4445,
    4446, 4447, 4448, 4415, 4450, 4416, 4452, 4453, 4454, 4455, 4417, 4418, 4419, 4459, 4460, 4461,
    4462, 4463, 4420, 4465, 4466, 4421, 4468, 4469, 4470, 4422, 4472, 4473, 4474, 4398, 4476, 4423,
    4478, 4479, 4480, 4481, 4482, 4483, 4484, 4485, 4486, 4487, 4424, 4489, 4425, 4491, 4426, 4427,
    4494, 4495, 4496, 4428, 4429, 4499]"

definition ts_primary_state_ids_30 :: "nat list" where "ts_primary_state_ids_30 = [
    4500, 4430, 4502, 4503, 4504, 4505, 4506, 4507, 4508, 4509, 4510, 4511, 4512, 4513, 4514, 4515,
    4516, 4517, 4518, 4519, 4520, 4521, 4463, 4431, 4524, 4525, 4526, 4527, 4461, 4529, 4530, 4531,
    4532, 4533, 4432, 4535, 4536, 4433, 4538, 4539, 4540, 4541, 4434, 4543, 4544, 4545, 4444, 4445,
    4459, 4468, 4550, 4435, 4552, 4436, 4554, 4555, 4532, 4527, 4529, 4531, 4560, 4545, 4562, 4563,
    4437, 4438, 4566, 4567, 4439, 4569, 4570, 4571, 4572, 4573, 4574, 4575, 4576, 4577, 4440, 4441,
    4580, 4442, 4582, 4583, 4584, 4585, 4586, 4587, 4588, 4589, 4590, 4591, 4592, 4593, 4594, 4595,
    4596, 4597, 4598, 4599, 4600, 4601, 4602, 4603, 4604, 4605, 4443, 4607, 4608, 4609, 4533, 4611,
    4612, 4613, 4614, 4399, 4616, 4617, 4618, 4619, 4620, 4621, 4622, 4623, 4624, 4625, 4626, 4627,
    4628, 4629, 4630, 4631, 4632, 4633, 4634, 4635, 4636, 4637, 4638, 4639, 4640, 4566, 4642, 4643,
    4644, 4645, 4646, 4647, 4648, 4649]"

definition ts_primary_state_ids_31 :: "nat list" where "ts_primary_state_ids_31 = [
    4650, 4651, 4652, 4653, 4654, 4655, 4656, 4657, 4658, 4659, 4660, 4661, 4662, 4663, 4664, 4665,
    4666, 4667, 4668, 4569, 4670, 4671, 4672, 4673, 4570, 4675, 4676, 4677, 4678, 4679, 4680, 4681,
    4571, 4683, 4572, 4685, 4686, 4687, 4688, 4689, 4690, 4691, 4692, 4693, 4694, 4695, 4696, 4697,
    4698, 4699, 4700, 4701, 4702, 4703, 4704, 4705, 4706, 4707, 4708, 4709, 4710, 4711, 4712, 4713,
    4714, 4715, 4716, 4717, 4718, 4719, 4720, 4721, 4722, 4723, 4724, 4725, 4726, 4727, 4400, 4729,
    4730, 4731, 4732, 4733, 4734, 4735, 4736, 4737, 4738, 4739, 4740, 4741, 4742, 4743, 4744, 4745,
    4746, 4747, 4748, 4749, 4750, 4751, 4575, 4753, 4754, 4755, 4756, 4757, 4758, 4759, 4760, 4761,
    4762, 4763, 4764, 4765, 4766, 4767, 4768, 4769, 4770, 4771, 4772, 4773, 4774, 4775, 4776, 4777,
    4778, 4576, 4780, 4781, 4782, 4783, 4784, 4785, 4786, 4787, 4788, 4789, 4790, 4791, 4580, 4401,
    4402, 4403, 4404, 4520, 4405, 4536]"

definition ts_primary_state_ids_32 :: "nat list" where "ts_primary_state_ids_32 = [
    4582, 4801, 4583, 4803, 4804, 4805, 4806, 4807, 4808, 4809, 4810, 4584, 4812, 4813, 4585, 4815,
    4816, 4817, 4818, 4819, 4820, 4821, 4587, 4823, 4824, 4825, 4826, 4588, 4828, 4590, 4830, 4831,
    4832, 4833, 4834, 4592, 4836, 4837, 4838, 4839, 4593, 4841, 4842, 4594, 4596, 4845, 4846, 4847,
    4848, 4849, 4850, 4851, 4852, 4598, 4854, 4600, 4856, 4857, 4858, 4859, 4602, 4861, 4603, 4863,
    4864, 4865, 4866, 4867, 4868, 4869, 4870, 4871, 4872, 4873, 4874, 4875, 4876, 4877, 4878, 4879,
    4880, 4881, 4882, 4883, 4884, 4885, 4886, 4887, 4888, 4889, 4890, 4891, 4892, 4893, 4894, 4895,
    4896, 4897, 4898, 4899, 4900, 4901, 4902, 4903, 4904, 4905, 4906, 4907, 4908, 4909, 4910, 4911,
    4912, 4913, 4914, 4915, 4916, 4917, 4918, 4919, 4920, 4921, 4922, 4618, 4924, 4925, 4926, 4927,
    4928, 4929, 4930, 4931, 4932, 4933, 4934, 4935, 4936, 4937, 4938, 4939, 4940, 4941, 4942, 4943,
    4944, 4945, 4946, 4947, 4948, 4949]"

definition ts_primary_state_ids_33 :: "nat list" where "ts_primary_state_ids_33 = [
    4950, 4951, 4952, 4953, 4954, 4955, 4956, 4957, 4447, 4621, 4960, 4454, 4962, 4963, 4964, 4622,
    4966, 4466, 4968, 4521, 4970, 4577, 4623, 4973, 4624, 4975, 4607, 4683, 4978, 4625, 4980, 4686,
    4982, 4627, 4984, 4628, 4986, 4987, 4504, 4989, 4630, 4991, 4552, 4631, 4554, 4608, 4632, 4612,
    4998, 4999, 5000, 5001, 5002, 4633, 5004, 5005, 5006, 5007, 5008, 5009, 4613, 5011, 5012, 5013,
    5014, 5015, 5016, 4616, 5018, 5019, 5020, 5021, 4634, 5023, 5024, 5025, 5026, 4673, 4676, 4677,
    4679, 4680, 4637, 4681, 5034, 4982, 5036, 5037, 4638, 5039, 5040, 4639, 5042, 4675, 5044, 5045,
    5046, 5047, 5048, 5049, 5050, 5051, 4640, 5053, 5054, 5055, 5056, 5057, 5058, 4642, 5060, 4524,
    5062, 5063, 4406, 4643, 5066, 5067, 4644, 5069, 4645, 5071, 5072, 4646, 5074, 5075, 4647, 5077,
    5078, 4648, 5080, 5081, 4650, 5083, 4538, 4651, 4653, 5087, 4654, 5089, 4655, 5091, 5092, 4407,
    4657, 4658, 4408, 4659, 5098, 5099]"

definition ts_primary_state_ids_34 :: "nat list" where "ts_primary_state_ids_34 = [
    5100, 5101, 5102, 4446, 5104, 5105, 5106, 5107, 5108, 5109, 4660, 5111, 5112, 5113, 5114, 5115,
    5116, 4661, 5118, 5119, 5120, 5121, 5122, 5123, 4663, 5125, 5126, 5127, 4664, 5129, 5130, 4665,
    5132, 5133, 4666, 5135, 5136, 5137, 4667, 5139, 5140, 5141, 4668, 5143, 5144, 4670, 5146, 5147,
    5148, 4671, 5150, 5151, 5152, 4672, 5154, 5155, 5156, 5157, 4541, 5159, 5160, 5161, 4450, 5163,
    5164, 5165, 5166, 5167, 5168, 5169, 5170, 5171, 5172, 5173, 5168, 4452, 5176, 5177, 5171, 4453,
    5180, 5181, 5182, 5183, 5184, 4448, 5186, 4465, 5188, 4472, 5190, 5191, 5192, 4473, 5194, 5195,
    4476, 5197, 4478, 4480, 5200, 4482, 5202, 4455, 5204, 4485, 4486, 5207, 5208, 4489, 5210, 4495,
    5212, 4496, 5214, 4499, 4500, 5217, 4506, 5219, 4508, 5221, 5222, 4511, 5224, 5225, 5226, 5227,
    5228, 5229, 4512, 5231, 5232, 4513, 5234, 5235, 4514, 5237, 5238, 4460, 4515, 5241, 5242, 4687,
    5244, 5245, 4688, 5247, 4516, 5249]"

definition ts_primary_state_ids_35 :: "nat list" where "ts_primary_state_ids_35 = [
    4517, 5251, 5252, 4692, 5254, 4518, 5256, 5257, 4693, 5259, 4694, 5261, 4525, 5263, 5264, 5265,
    4695, 5267, 5268, 4696, 5270, 4526, 5272, 4699, 5274, 5275, 4700, 5277, 5278, 5279, 5280, 4701,
    5282, 4530, 5284, 4702, 5286, 4535, 4703, 5289, 4704, 5291, 5292, 4707, 5294, 5295, 5296, 4708,
    5298, 4539, 5300, 4709, 5302, 4540, 5304, 5305, 4710, 5307, 5308, 5309, 4462, 5311, 4711, 5313,
    5314, 4550, 4714, 5317, 4555, 5319, 5320, 4715, 4718, 5323, 5324, 5325, 4719, 5327, 5328, 4560,
    4720, 5331, 4563, 5333, 4567, 4721, 5336, 4574, 5338, 4586, 4589, 4722, 4591, 5343, 5344, 4397,
    5346, 5347, 5348, 4724, 5350, 5351, 5352, 5353, 5354, 4595, 5356, 5357, 5358, 5359, 5360, 4725,
    5362, 4597, 5364, 5365, 4726, 5367, 5368, 4599, 5370, 4601, 5372, 4604, 5374, 5375, 4605, 5377,
    5378, 4609, 5380, 5381, 5382, 5383, 4732, 5385, 5386, 4611, 4614, 5389, 4617, 5391, 5392, 5393,
    5394, 4619, 5396, 4620, 5398, 4626]"

definition ts_primary_state_ids_36 :: "nat list" where "ts_primary_state_ids_36 = [
    5400, 5401, 5402, 4629, 5404, 4635, 5406, 4733, 5408, 4734, 5410, 4636, 5412, 4649, 5414, 5415,
    5416, 5417, 5418, 5419, 4735, 4652, 5422, 4736, 5424, 5425, 5426, 4656, 5428, 4737, 5430, 4662,
    5432, 4738, 5434, 4678, 5436, 4739, 5438, 4740, 5440, 4685, 5442, 4741, 5444, 4689, 5446, 5447,
    5448, 4742, 5450, 5451, 4743, 4690, 5454, 4745, 5456, 5457, 4746, 5459, 4691, 5461, 4748, 5463,
    5464, 5465, 5466, 4750, 5468, 4697, 5470, 4698, 4755, 5473, 4705, 5475, 5476, 5477, 5478, 5479,
    4756, 5481, 5482, 4706, 5484, 5485, 5486, 4757, 5488, 4758, 5490, 5491, 4760, 5493, 5494, 4712,
    4713, 5497, 4762, 5499, 4764, 5501, 5502, 5503, 4716, 5505, 4765, 5507, 5508, 5509, 5510, 4767,
    5512, 5513, 4469, 4769, 5516, 4470, 5518, 4773, 5520, 5521, 5522, 4774, 5524, 4717, 5526, 4775,
    5528, 4776, 5530, 4781, 5532, 4723, 5534, 4782, 5536, 4474, 5538, 4783, 5540, 5541, 5542, 5543,
    4727, 5545, 5546, 4784, 4729, 5549]"

definition ts_primary_state_ids_37 :: "nat list" where "ts_primary_state_ids_37 = [
    4730, 5551, 4785, 5553, 5554, 4479, 5556, 4786, 5558, 4744, 5560, 4747, 5562, 4481, 5564, 5565,
    4483, 5567, 4749, 5569, 4751, 5571, 4753, 4754, 4759, 5575, 4761, 4763, 4766, 4768, 4770, 4771,
    5582, 4772, 4777, 4778, 4780, 4787, 4788, 4789, 4790, 4791, 4409, 4410, 4960, 4411, 4543, 4412,
    4413, 4414, 4544, 5181, 5602, 4484, 5183, 4804, 5606, 4806, 5608, 4807, 4808, 4810, 4812, 4815,
    4820, 4823, 4825, 4830, 4832, 4836, 4838, 4845, 4847, 5623, 4850, 4851, 5626, 4859, 4865, 4866,
    4867, 4868, 4870, 4871, 4872, 4873, 5636, 4874, 5638, 4875, 5640, 4876, 4877, 4878, 5644, 5645,
    5646, 4880, 5648, 4882, 5650, 4883, 4885, 5653, 4887, 4888, 4889, 5657, 4891, 5659, 5660, 4892,
    4893, 4894, 4895, 4896, 4898, 4899, 4901, 4902, 4904, 4905, 4908, 5673, 4909, 5675, 5676, 4911,
    4912, 4913, 5680, 4914, 4915, 4916, 5684, 4917, 4920, 5687, 4922, 4924, 4926, 4928, 4930, 4931,
    5694, 5695, 4932, 4487, 4933, 4934]"

definition ts_primary_state_ids_38 :: "nat list" where "ts_primary_state_ids_38 = [
    4935, 4938, 4940, 4942, 4944, 5705, 5706, 4945, 5708, 4946, 5710, 5711, 4947, 5713, 4948, 5715,
    5716, 4950, 5718, 5719, 5720, 5721, 4952, 5723, 4955, 5725, 4957, 5727, 5728, 4962, 4963, 4964,
    4966, 4968, 4970, 4973, 4975, 4978, 5738, 4980, 4984, 4986, 4989, 4991, 5744, 4491, 5746, 4998,
    4999, 5749, 5000, 5001, 5002, 5004, 5005, 5006, 5007, 5008, 5009, 5011, 5012, 5013, 5014, 5015,
    5764, 5765, 5016, 5018, 5768, 5769, 5019, 5020, 5021, 5023, 5024, 5026, 4987, 5777, 5778, 4494,
    5780, 5034, 5036, 5037, 5039, 5040, 5042, 5044, 5045, 5046, 5790, 5047, 5048, 5049, 4311, 5050,
    5051, 5053, 5054, 5799, 4801, 5801, 5802, 5803, 5804, 5055, 5056, 5057, 5058, 5060, 5062, 5063,
    5066, 4803, 5067, 5069, 5071, 5072, 5074, 5075, 5077, 5078, 5080, 5081, 5083, 5087, 5089, 5091,
    5092, 5098, 5099, 5100, 5101, 5102, 5104, 5105, 5106, 5107, 5108, 5109, 5840, 5111, 5112, 5113,
    5114, 5115, 5116, 5118, 5119, 5120]"

definition ts_primary_state_ids_39 :: "nat list" where "ts_primary_state_ids_39 = [
    5121, 5122, 5123, 5125, 5126, 5127, 5129, 5130, 5132, 5133, 5135, 5136, 5137, 5139, 5864, 5140,
    5141, 5143, 5144, 5146, 5147, 5148, 5150, 5151, 5152, 5154, 5155, 5156, 5157, 5159, 5160, 5161,
    5163, 5164, 5165, 5166, 5167, 5169, 5170, 5172, 5173, 5891, 5892, 5893, 5176, 5177, 5180, 5182,
    5184, 5186, 5188, 5190, 5191, 5192, 5194, 5195, 5197, 5200, 5202, 5204, 5207, 5208, 5210, 5212,
    5214, 5915, 5217, 5219, 4502, 5919, 5920, 5221, 5222, 5224, 5225, 5925, 5926, 5226, 4503, 5227,
    5930, 5228, 5229, 5933, 5231, 5232, 5936, 5937, 5234, 5235, 5237, 5941, 4731, 5943, 5238, 4805,
    5946, 4809, 5241, 5242, 5950, 5951, 5244, 5953, 5954, 5245, 5247, 5957, 4813, 4816, 5249, 5961,
    5962, 5251, 5252, 5254, 5256, 5257, 5259, 5969, 5261, 5971, 4817, 5263, 5264, 5975, 5265, 5977,
    5267, 5268, 4818, 5981, 5270, 5983, 4819, 5985, 5272, 5274, 5275, 4821, 5277, 5278, 5992, 5279,
    5280, 5995, 5282, 5284, 5286, 5289]"

definition ts_primary_state_ids_40 :: "nat list" where "ts_primary_state_ids_40 = [
    4824, 5291, 5292, 6003, 6004, 5294, 4826, 6007, 6008, 5295, 5298, 5300, 6012, 5302, 5304, 6015,
    5305, 6017, 6018, 5307, 5308, 5309, 5311, 5313, 5314, 5317, 5319, 5320, 6028, 5323, 5324, 6031,
    5325, 6033, 6034, 5327, 5328, 5331, 5333, 4828, 5336, 5338, 5343, 5344, 6044, 6045, 5346, 5347,
    6048, 5348, 5350, 5351, 5352, 6053, 6054, 6055, 4831, 5353, 5354, 6059, 5356, 6061, 6062, 4833,
    5357, 6065, 6066, 6067, 5358, 5359, 6070, 5360, 6072, 5362, 5364, 6075, 4834, 6077, 5365, 6079,
    6080, 5367, 5368, 5370, 6084, 4837, 5372, 6087, 6088, 5374, 5375, 5377, 6092, 6093, 4839, 5378,
    4505, 6097, 4841, 5380, 5381, 5382, 6102, 5383, 5385, 4507, 5386, 6107, 6108, 5389, 5391, 4842,
    6112, 4846, 5393, 5394, 6116, 4848, 6118, 5396, 6120, 6121, 5398, 5400, 5402, 6125, 5404, 5406,
    6128, 5408, 4509, 6131, 5410, 5412, 5414, 5415, 6136, 5416, 5417, 4849, 6140, 6141, 5418, 6143,
    4852, 6145, 5419, 5422, 5424, 5425]"

definition ts_primary_state_ids_41 :: "nat list" where "ts_primary_state_ids_41 = [
    5426, 6151, 5428, 6153, 5430, 5432, 5434, 5436, 6158, 5438, 5440, 5442, 5444, 6163, 5446, 5447,
    4854, 5448, 4510, 6169, 5450, 5451, 5454, 5456, 4856, 5457, 5459, 5461, 5463, 5464, 6180, 5465,
    5466, 5468, 5470, 5473, 6186, 5475, 6188, 4857, 6190, 5476, 5477, 5478, 6194, 4858, 5479, 6197,
    6198, 5481, 6200, 6201, 4861, 5482, 5484, 6205, 6206, 5485, 5486, 4863, 6210, 4864, 5488, 6213,
    4869, 6215, 5490, 5491, 6218, 5493, 6220, 4879, 6222, 5494, 5497, 5499, 6226, 4881, 5501, 6229,
    5502, 6231, 5503, 5505, 5507, 4884, 5508, 5509, 6238, 5510, 5512, 6241, 5513, 5516, 6244, 4886,
    5518, 5520, 6248, 6249, 5521, 6251, 6252, 6253, 5522, 5524, 5526, 6257, 5528, 5530, 6260, 5532,
    6262, 4890, 5534, 5536, 5538, 5540, 6268, 5541, 5542, 6271, 6272, 6273, 5543, 6275, 6276, 5545,
    5546, 5549, 5551, 6281, 5553, 5554, 6284, 5556, 6286, 6287, 5558, 5560, 5562, 5564, 5565, 5567,
    5569, 5571, 5575, 6297, 5582, 5602]"

definition ts_primary_state_ids_42 :: "nat list" where "ts_primary_state_ids_42 = [
    6300, 5606, 4897, 6303, 5608, 5623, 5626, 5636, 6308, 5638, 5640, 5644, 5645, 5646, 6314, 5648,
    5650, 6317, 5653, 5657, 6320, 5659, 4900, 6323, 6324, 5660, 5673, 5675, 6328, 6329, 5676, 6331,
    6332, 6333, 5680, 5684, 6336, 6337, 5687, 5694, 6340, 6341, 6342, 5695, 5705, 6345, 6346, 4903,
    5706, 6349, 6350, 6351, 5708, 5710, 5711, 6355, 5713, 4906, 6358, 6359, 5715, 5716, 5718, 6363,
    6364, 5719, 6366, 6367, 5720, 5721, 5723, 5725, 6372, 5727, 5728, 6375, 5738, 6377, 5744, 5746,
    6380, 6381, 5749, 5764, 6384, 5765, 6386, 5768, 6388, 6389, 5769, 5777, 5778, 6393, 5780, 5790,
    5799, 5801, 4907, 6399, 5802, 5803, 5804, 5840, 5864, 5891, 5892, 6407, 5893, 6409, 5915, 6411,
    5919, 6413, 5920, 5925, 5926, 5930, 5933, 6419, 5936, 5937, 6422, 5941, 5943, 5946, 5950, 5951,
    5953, 5954, 5957, 6431, 5961, 5962, 6434, 5969, 6436, 6437, 5971, 5975, 5977, 5981, 6442, 5983,
    5985, 5992, 5995, 6003, 6448, 6004]"

definition ts_primary_state_ids_43 :: "nat list" where "ts_primary_state_ids_43 = [
    6007, 4910, 6452, 6453, 6454, 6455, 6456, 6457, 6458, 6459, 6460, 4312, 6008, 6012, 6015, 6017,
    6018, 6028, 6031, 6033, 6034, 6045, 6048, 6053, 6054, 6055, 6059, 6061, 6062, 6065, 6066, 6067,
    6070, 6072, 6075, 6077, 6079, 6080, 6084, 6087, 6088, 6092, 6093, 6097, 6102, 6107, 6108, 6112,
    6116, 6118, 6120, 6121, 6125, 6128, 6131, 6136, 4313, 6140, 6141, 6143, 6145, 6151, 6153, 6158,
    6163, 4314, 6169, 6180, 6186, 6188, 4315, 4316, 4317, 6190, 4318, 6194, 6197, 6198, 6200, 4319,
    4320, 6201, 4321, 4322, 6205, 6206, 4323, 4324, 4325, 6210, 6213, 4326, 6215, 6218, 6220, 4327,
    6222, 6226, 4328, 4329, 6229, 6231, 6238, 4330, 6241, 6244, 4331, 4918, 4332, 4333, 6248, 6249,
    6251, 6252, 4334, 4919, 6253, 6257, 6260, 6262, 4335, 6268, 4921, 4336, 4337, 6271, 6272, 4338,
    4339, 4340, 4341, 6273, 6275, 6276, 4925, 4342, 4343, 6281, 4927, 4344, 6284, 4345, 4346, 6286,
    6287, 4347, 4929, 4348, 6297, 4349]"

definition ts_primary_state_ids_44 :: "nat list" where "ts_primary_state_ids_44 = [
    4936, 6300, 4350, 4351, 4937, 6303, 6308, 6314, 6320, 6323, 6324, 4352, 4939, 4353, 6328, 6329,
    4354, 4355, 6331, 4941, 4356, 6332, 6333, 6336, 4943, 6337, 6340, 4357, 6341, 4358, 6345, 6346,
    4949, 4359, 4360, 6349, 4361, 4362, 6350, 6351, 6355, 6358, 4363, 6359, 6363, 6364, 4364, 6366,
    6367, 4365, 4951, 4366, 6372, 6375, 6377, 6380, 4367, 6381, 6384, 6386, 4368, 6388, 6389, 4369,
    4370, 4371, 6393, 6399, 6407, 6409, 6411, 4372, 6413, 6419, 6422, 6431, 6434, 6436, 6437, 4373,
    4374, 4375, 4376, 4377, 4378, 4379, 4380, 4381, 4382, 4953, 4383, 4384, 4519, 4385, 4386, 4387,
    4954, 4388, 6442, 6448, 6452, 6453, 6454, 6455, 6456, 4389, 4390, 4956, 4391, 4392, 4393, 4394,
    4395, 4396, 6457, 6458, 6459, 6460, 6044, 3661, 3665, 3665, 3661, 6723, 6724, 6725, 6726, 6723,
    6724, 6729, 6730, 6731, 6732, 6726, 6734, 6735, 6731, 6732, 6738, 6739, 6739, 6738, 6742, 6742,
    6744, 6730, 6738, 6742, 6748, 6749]"

definition ts_primary_state_ids_45 :: "nat list" where "ts_primary_state_ids_45 = [
    6750, 6729, 6749, 6753, 6749, 6749, 6749, 6749, 6758, 6759, 6760, 6760, 6762, 6763, 6764, 6765,
    6766, 6767, 6768, 6769, 6765, 6771, 6767, 6773, 6774, 6775, 6776, 6777, 6778, 6767, 6780, 6781,
    6782, 6783, 6767, 6767, 6759, 6787, 6788, 6789, 6790, 6791, 6767, 6793, 6794, 6795, 6796, 6797,
    6798, 6799, 6800, 6767, 6767, 6803, 6767, 6767, 6767, 6767, 6808, 6809, 6810, 6811, 6812, 6813,
    6814, 6815, 6814, 6817, 6818, 6795, 6820, 6811, 6813, 6810, 6812, 6815, 6814, 6827, 6820, 6818,
    6827, 6818, 6827, 6820, 6811, 6827, 6796, 6818, 6797, 6820, 6811, 6813, 6810, 6812, 6815, 6768,
    6827, 6814, 6813, 6810, 6812, 6815, 6814, 6818, 6827, 6798, 6820, 6811, 6813, 6810, 6812, 6815,
    6817, 6814, 6811, 6865, 6866, 6818, 6818, 6827, 6870, 6812, 6820, 6811, 6815, 6813, 6810, 6812,
    6815, 6814, 6818, 6813, 6820, 6811, 6813, 6810, 6814, 6812, 6888, 6818, 6827, 6766, 6810, 6827,
    6815, 6814, 6812, 6820, 6811, 6813]"

definition ts_primary_state_ids_46 :: "nat list" where "ts_primary_state_ids_46 = [
    6810, 6812, 6815, 6814, 6815, 6820, 6811, 6813, 6810, 6812, 6815, 6814, 6820, 6913, 6820, 6818,
    6818, 6811, 6813, 6810, 6812, 6815, 6814, 6818, 6818, 6818, 6827, 6811, 6820, 6813, 6810, 6827,
    6827, 6913, 6913, 6935, 6936, 6937, 6913, 6937, 6940, 6935, 6762, 6758, 6937, 6945, 6946, 6947,
    6948, 6949, 6950, 6951, 6952, 6953, 6936, 6935, 6936, 6957, 6935, 6936, 6960, 6937, 6962, 6947,
    6964, 6965, 6966, 6967, 6803, 6788, 5392, 6865, 5401, 6973, 5025, 6975, 5392, 5401, 6317, 6342,
    4562, 4573, 6808, 6777, 6866, 6317, 6791, 6342, 6800, 6771, 6773, 4562, 6992, 6799, 4573, 6995,
    6996, 6997, 6998, 6999, 6776, 6790, 7002, 6789, 6780, 7005, 7006, 7007, 6778, 7009, 7010, 7011,
    7012, 7013, 6781, 7015, 6753, 7017, 6948, 6945, 6946, 6949, 6950, 6951, 6952, 6953, 6960, 7027,
    6945, 6946, 6949, 6950, 6951, 6952, 6953, 6960, 6870, 6947, 6888, 6947, 6948, 6787, 6945, 6946,
    7044, 6750, 6949, 6950, 6951, 6782]"

definition ts_primary_state_ids_47 :: "nat list" where "ts_primary_state_ids_47 = [
    6783, 6952, 6948, 6953, 6960, 6809, 6793, 6794, 5025, 6750, 6753, 7061, 7062, 7063, 7064, 7065,
    7066, 7013, 6763, 6750, 7063, 6753, 6913, 7063, 6750, 6764, 6940, 7009, 6762, 7009, 5025, 6758,
    6758, 6957, 4562, 6753, 6750, 6753, 6750, 6962, 6957, 6753, 5392, 5401, 6940, 6762, 6762, 6962,
    4573, 6758, 6753, 6750, 6317, 6342, 6962, 6940, 7009, 6913, 7013, 6753, 7063, 7013, 6957, 6865,
    7064, 6967, 7015, 6803, 6790, 6870, 6777, 7027, 7065, 7044, 7066, 7005, 6973, 6975, 6997, 6999,
    7007, 7012, 6888, 7061, 7062, 6995, 6973, 6996, 6998, 7002, 7006, 7010, 6995, 6975, 7065, 6964,
    6992, 7064, 7011, 7017, 6965, 6865, 6866, 6996, 7064, 6967, 7156, 7015, 6998, 7002, 7006, 7061,
    6787, 7062, 7010, 6967, 7015, 6808, 6788, 6789, 7044, 7066, 7005, 6997, 6999, 7007, 7012, 6774,
    6775, 7061, 7062, 6791, 5025, 6799, 6803, 6777, 6995, 6996, 6998, 7002, 7006, 6778, 7010, 5392,
    5392, 5401, 6787, 6788, 6789, 7065]"

definition ts_primary_state_ids_48 :: "nat list" where "ts_primary_state_ids_48 = [
    6964, 6771, 6992, 6317, 6342, 6780, 6781, 6782, 6783, 6809, 6793, 6794, 7011, 7027, 4573, 6800,
    6773, 6776, 7017, 6790, 6964, 6870, 6992, 5401, 6888, 6808, 6865, 6866, 6317, 6791, 5025, 6342,
    6799, 6778, 6771, 6803, 6777, 6778, 5392, 5401, 6787, 6788, 6789, 6771, 6317, 6342, 6780, 6781,
    6782, 6966, 6783, 6809, 6793, 6794, 4562, 6973, 4573, 6800, 6773, 6776, 6790, 6780, 6763, 6764,
    7027, 5025, 6781, 6782, 6975, 6763, 6783, 6809, 6870, 6888, 6793, 6794, 6764, 7011, 6966, 4562,
    6808, 4573, 7282, 7044, 7066, 7005, 6763, 6997, 6999, 7007, 7012, 6791, 6764, 6800, 7017, 6965,
    6774, 6965, 6775, 6773, 6776, 6866, 6966, 6799, 4562, 6775, 6913, 6774, 6774, 6775, 6775, 6774,
    6774, 6775, 7282, 6913, 7156, 6913, 6913, 6774, 7282, 7156, 7282, 7156, 6775, 6913, 6913, 6774,
    6775, 6950, 6948, 6960, 6952, 6951, 6935, 6947, 6946, 6953, 6936, 6913, 6953, 6947, 6951, 6949,
    6945, 6950, 6952, 6937, 6946, 6945]"

definition ts_primary_state_ids_49 :: "nat list" where "ts_primary_state_ids_49 = [
    6949, 6960, 6948, 7353, 7013, 6913, 6753, 6750, 7009, 6946, 6937, 6951, 6949, 6945, 6950, 6947,
    6947, 6935, 6951, 6952, 6937, 6948, 6947, 6946, 6758, 6953, 6948, 6960, 6953, 6947, 6952, 6957,
    6949, 7383, 6960, 6950, 6945, 6946, 6949, 6950, 6951, 6936, 6945, 6952, 6947, 6952, 6960, 6946,
    6936, 6935, 6945, 6960, 6950, 6951, 6962, 6952, 6945, 6951, 6913, 6948, 6913, 6948, 6949, 6949,
    6763, 6950, 6940, 6948, 6953, 6946, 6762, 6960, 6764, 6953, 6953, 7007, 6791, 6777, 6799, 6995,
    6778, 6787, 6788, 6789, 6771, 6780, 6781, 6782, 6783, 6809, 6793, 6794, 6800, 6773, 6776, 6790,
    6996, 6998, 7002, 7006, 7010, 6952, 7353, 7044, 6945, 6946, 6949, 6936, 6950, 6951, 7065, 6964,
    6947, 6992, 7066, 7005, 6948, 6997, 6999, 7011, 6965, 6913, 6808, 6960, 7017, 6913, 7012, 6791,
    6865, 6866, 6937, 6799, 7482, 6913, 6803, 6778, 6787, 6788, 6789, 6771, 6953, 6780, 6781, 6782,
    6783, 6809, 6793, 6794, 6800, 6774]"

definition ts_primary_state_ids_50 :: "nat list" where "ts_primary_state_ids_50 = [
    6775, 6773, 6776, 6790, 6966, 7027, 6870, 6888, 7353, 6935, 7061, 7062, 7064, 6913, 7353, 7515,
    6967, 7517, 6973, 6975, 7015, 7353, 6962, 7523, 6940, 6962, 7526, 7523, 6762, 7523, 7523, 6769,
    6758, 7533, 7534, 7523, 7536, 6763, 7523, 7539, 6764, 7523, 6762, 7523, 6957, 7523, 6759, 6758,
    6957, 7549, 6765, 7523, 6940, 7027, 6973, 7010, 7027, 6965, 6865, 6866, 6975, 6778, 5025, 7563,
    6766, 7064, 6957, 5392, 6967, 7015, 5401, 7011, 7539, 6808, 6973, 6975, 6966, 4562, 4573, 7534,
    6940, 6758, 7582, 7062, 7539, 6780, 7586, 7587, 6762, 6781, 6791, 5025, 6995, 7044, 7066, 7005,
    7596, 6771, 6997, 6999, 7007, 7012, 7061, 7062, 6782, 6799, 6783, 6809, 6787, 6788, 6996, 6789,
    6759, 6803, 6799, 6777, 7065, 6765, 6777, 6995, 6996, 6998, 7002, 7006, 6964, 7010, 6793, 6765,
    6998, 7065, 6964, 6778, 6992, 7061, 6962, 5392, 5401, 6787, 6788, 6992, 6789, 6865, 6866, 6771,
    7011, 7017, 7646, 6317, 6342, 6780]"

definition ts_primary_state_ids_51 :: "nat list" where "ts_primary_state_ids_51 = [
    6781, 7017, 6782, 6965, 6769, 6870, 6800, 6783, 6888, 6809, 6794, 6793, 6794, 6795, 7064, 6967,
    7015, 4562, 4573, 6800, 6773, 6776, 6769, 6790, 6870, 6888, 6317, 6796, 6342, 6797, 7002, 6808,
    7006, 6798, 7044, 6773, 7066, 7005, 6776, 6870, 6764, 6997, 6999, 7007, 7536, 7012, 6966, 6791,
    6790, 6888, 7526, 6803, 6763, 7533, 6759, 7062, 6798, 7002, 6870, 6975, 7539, 7010, 7066, 6803,
    7005, 6992, 6763, 6764, 7011, 6808, 6967, 7721, 7722, 7015, 6965, 6870, 6997, 6966, 6888, 6795,
    6796, 6797, 6798, 6798, 6865, 6866, 6870, 6888, 6766, 6795, 6998, 7006, 7742, 7017, 6999, 6797,
    7007, 7044, 7012, 7721, 6795, 7751, 7752, 7065, 7027, 6888, 6796, 6996, 6995, 6766, 7526, 6964,
    7533, 7534, 7536, 6777, 6796, 6797, 6766, 7515, 7517, 6763, 6764, 7064, 7061, 7482, 7722, 7539,
    6973, 7009, 6764, 7781, 7009, 7539, 7784, 6870, 6888, 6870, 7009, 6888, 6763, 6789, 6798, 7752,
    6791, 6799, 6778, 6787, 6788, 6771]"

definition ts_primary_state_ids_52 :: "nat list" where "ts_primary_state_ids_52 = [
    6780, 6781, 6782, 6783, 6809, 6793, 6794, 6800, 6773, 6776, 6790, 6866, 6766, 7751, 6870, 6888,
    6795, 6870, 6796, 6888, 6797, 6865, 7822, 7823, 7824, 7825, 7825, 7827, 7824, 7829, 7824, 7827,
    7827, 7825, 7827, 7824, 7827, 7829, 7827, 7827, 7827, 7827, 7827, 7827, 7827, 7829, 7825, 7847,
    7848, 7849, 7848, 7851, 7852, 7853, 7849, 7855, 7852, 7857, 7857, 7848, 7857, 7861, 7851, 7847,
    7852, 7865, 7865, 7848, 7849, 7851, 7847, 7853, 7855, 7851, 7857, 7861, 7855, 7849, 7878, 7852,
    7853, 7881, 7882, 7855, 7884, 7865, 7886, 7865, 7853, 7847, 7890, 7891, 7892, 7891, 7891, 7895,
    7892, 7897, 7897, 7899, 7900, 7900, 7902, 7900, 7904, 7902, 7900, 7902, 7904, 7909, 7910, 7899,
    7910, 7909, 7909, 7902, 7899, 7899, 7910, 7909, 7910, 7825, 7922, 7825, 7824, 7824, 7926, 7926,
    7886, 7929, 7884, 7931, 7929, 7933, 7878, 7882, 7881, 7929, 7926, 7929, 7926, 7825, 7824, 7825,
    7824, 7825, 7824, 7824, 7824, 7825]"

definition ts_primary_state_ids_53 :: "nat list" where "ts_primary_state_ids_53 = [
    7825, 6798, 7824, 7953, 6797, 7825, 7956, 7956, 7751, 7959, 6795, 6766, 6796, 7752, 7964, 7964,
    7966, 7967, 7968, 7969, 7970, 6795, 6796, 6797, 6798, 7975, 7976, 7977, 7751, 7979, 7967, 7976,
    7752, 7983, 7979, 7967, 7976, 7979, 7975, 7966, 7968, 6766, 6866, 6870, 6888, 6865, 7996, 7997,
    7997, 7999, 8000, 7997, 8002, 7997, 7997, 7997, 7997, 7997, 7997, 7997, 8010, 8011, 8012, 8013,
    8014, 8015, 8016, 8017, 6766, 8019, 7977, 6865, 6866, 7751, 7752, 8000, 8002, 8010, 6798, 8011,
    8030, 8031, 8032, 8033, 8034, 8035, 7977, 6795, 6796, 6797, 6798, 7969, 6766, 7751, 8044, 8045,
    8046, 7969, 8048, 6870, 6888, 7970, 7970, 7977, 7752, 8055, 7969, 6795, 6796, 6797, 7970, 8061,
    8062, 8063, 8064, 8065, 8014, 8015, 8016, 8017, 8012, 8019, 8046, 8045, 8035, 8045, 8046, 8013,
    7996, 8079, 8080, 8044, 8014, 8015, 8044, 8055, 8086, 8030, 8016, 8014, 8015, 8016, 8017, 8093,
    8017, 8013, 8012, 8097, 8098, 8019]"

definition ts_primary_state_ids_54 :: "nat list" where "ts_primary_state_ids_54 = [
    8080, 8032, 7999, 8030, 8012, 8105, 8055, 8107, 8108, 8030, 8019, 8111, 8112, 8113, 8114, 8098,
    8105, 8107, 8108, 8111, 8112, 8113, 8114, 8123, 8124, 8125, 8126, 8127, 8128, 8129, 8130, 8131,
    8132, 8133, 8134, 8135, 8136, 8137, 8138, 8139, 8140, 8141, 8142, 8143, 8144, 8145, 8133, 8062,
    8063, 8064, 8065, 8097, 8093, 8033, 8097, 8155, 8123, 8124, 8080, 8034, 8125, 8126, 8127, 8093,
    8055, 8044, 8128, 8086, 8013, 8129, 8170, 8130, 8131, 8173, 8132, 8175, 8134, 8135, 8136, 8137,
    8180, 8138, 8139, 8045, 8046, 8155, 8140, 8061, 8188, 8180, 8141, 8142, 8143, 8144, 8145, 8175,
    8139, 8197, 8198, 8199, 8200, 8111, 8202, 8112, 8113, 8114, 8206, 8207, 8208, 8123, 8124, 8211,
    8145, 8098, 8125, 8126, 8127, 8217, 8128, 8129, 8170, 8130, 8131, 8132, 8175, 8134, 8188, 8127,
    8133, 8062, 8063, 8098, 8064, 8233, 8234, 8045, 8046, 8217, 8105, 8107, 8240, 8108, 8242, 8243,
    8244, 8245, 8246, 8247, 8173, 8135]"

definition ts_primary_state_ids_55 :: "nat list" where "ts_primary_state_ids_55 = [
    8247, 8136, 8252, 8253, 8197, 8198, 8135, 8111, 8112, 8113, 8114, 8123, 8124, 8136, 8137, 8265,
    8266, 8199, 8125, 8126, 8127, 8271, 8128, 8129, 8130, 8138, 8131, 8132, 8175, 8134, 8137, 8135,
    8139, 8136, 8137, 8140, 8141, 8170, 8142, 8138, 8143, 8144, 8173, 8140, 8141, 8142, 8143, 8144,
    8145, 8299, 8133, 8062, 8063, 8303, 8064, 8305, 8271, 8307, 8065, 8309, 8138, 8145, 8133, 8062,
    8063, 8064, 8316, 8105, 8107, 8111, 8112, 8113, 8114, 8123, 8124, 8045, 8046, 8108, 8188, 8329,
    8330, 8331, 8332, 8333, 8334, 8335, 8336, 8139, 8338, 8339, 8252, 8341, 8342, 8343, 8344, 8140,
    8141, 8142, 8128, 8143, 8144, 8351, 8129, 8265, 8266, 8130, 8105, 8107, 8108, 8246, 8098, 7586,
    8170, 8131, 8065, 8132, 8175, 8134, 8098, 8105, 8107, 8108, 8111, 8112, 8113, 8114, 8123, 8124,
    8065, 8125, 8126, 8127, 8128, 8129, 8130, 8131, 8132, 8175, 8134, 8135, 8136, 8137, 8138, 8139,
    8140, 8141, 8142, 8143, 8144, 8145]"

definition ts_primary_state_ids_56 :: "nat list" where "ts_primary_state_ids_56 = [
    8133, 8062, 8063, 8064, 8065, 8188, 8244, 8098, 8105, 8107, 8108, 8111, 8112, 8113, 8114, 8123,
    8124, 8125, 8126, 8127, 8128, 8129, 8130, 8131, 8132, 8175, 8134, 8135, 8136, 8137, 8138, 8139,
    8140, 8141, 8142, 8143, 8144, 8145, 8133, 8062, 8063, 8064, 8065, 8098, 8105, 8107, 8108, 8111,
    8112, 8113, 8114, 8123, 8124, 8125, 8126, 8127, 8128, 8129, 8130, 8131, 8132, 8175, 8134, 8135,
    8136, 8137, 8138, 8139, 8140, 8141, 8142, 8143, 8144, 8145, 8133, 8062, 8063, 8064, 8065, 8253,
    8173, 8481, 8482, 8483, 8484, 8485, 8486, 8125, 8126, 8489, 8489, 8336, 8303, 8305, 8307, 8211,
    8242, 8234, 8240, 8309, 8316, 8242, 8240, 8351, 8202, 8338, 8339, 8211, 8206, 8207, 8208, 8243,
    8243, 8329, 8330, 8331, 8332, 8333, 8489, 8245, 8334, 8329, 8335, 8336, 8242, 8341, 8342, 8343,
    8344, 8351, 8330, 8331, 8332, 8333, 8334, 8335, 8173, 8336, 8316, 8245, 8234, 8173, 8316, 8351,
    8206, 8243, 8329, 8330, 8548, 8331]"

definition ts_primary_state_ids_57 :: "nat list" where "ts_primary_state_ids_57 = [
    8332, 8338, 8339, 8207, 8208, 8342, 8343, 8344, 8245, 8299, 8299, 8303, 8305, 8307, 8309, 8045,
    8046, 8333, 8568, 8569, 8334, 8335, 8481, 8482, 8483, 8484, 8485, 8486, 8578, 8338, 8339, 8489,
    8341, 8207, 8342, 8240, 8208, 8343, 8588, 8589, 8344, 8481, 8482, 8483, 8484, 8200, 8485, 8486,
    8481, 8482, 8234, 8483, 8484, 8485, 8486, 8299, 8303, 8305, 8307, 8309, 8200, 8200, 8202, 8202,
    8206, 8211, 8341, 8617, 8618, 8619, 8620, 8621, 8622, 8568, 8624, 8625, 8626, 8569, 8568, 8569,
    8548, 8568, 8569, 8633, 8634, 8635, 8636, 8637, 8588, 8639, 8640, 8589, 8642, 8643, 8644, 8645,
    8646, 8647, 8633, 8649, 8650, 8651, 8617, 8653, 8624, 8626, 8642, 8643, 8658, 8659, 8660, 8619,
    8620, 8621, 8622, 8665, 8649, 8667, 8668, 8669, 8670, 8671, 8672, 8673, 8674, 8675, 8650, 8677,
    8588, 8679, 8680, 8681, 8682, 8683, 8640, 8589, 8686, 8687, 8688, 8667, 8690, 8679, 8173, 8668,
    8669, 8670, 8671, 8697, 8698, 8699]"

definition ts_primary_state_ids_58 :: "nat list" where "ts_primary_state_ids_58 = [
    8700, 8701, 8702, 8703, 8704, 8705, 8706, 8707, 8708, 8709, 8710, 8711, 8712, 8713, 8714, 8715,
    8716, 8717, 8718, 8719, 8720, 8721, 8722, 8723, 8724, 8725, 8726, 8727, 8728, 8729, 8730, 8731,
    8732, 8733, 8734, 8735, 8736, 8737, 8738, 8739, 8740, 8741, 8742, 8743, 8744, 8745, 8746, 8747,
    8748, 8749, 8750, 8751, 8752, 8753, 8754, 8755, 8756, 8757, 8758, 8759, 8760, 8761, 8762, 8763,
    8764, 8660, 8766, 8767, 8768, 8769, 8770, 8771, 8772, 8773, 8774, 8775, 8776, 8777, 8778, 8779,
    8780, 8781, 8782, 8783, 8784, 8785, 8786, 8787, 8788, 8789, 8790, 8791, 8792, 8793, 8794, 8795,
    8796, 8797, 8798, 8799, 8800, 8801, 8802, 8803, 8804, 8805, 8806, 8807, 8808, 8809, 8810, 8811,
    8812, 8813, 8814, 8815, 8816, 8817, 8818, 8819, 8820, 8821, 8822, 8823, 8824, 8825, 8651, 8636,
    8680, 8681, 8672, 8673, 8644, 8674, 8675, 8645, 8646, 8658, 8659, 8548, 8588, 8589, 8682, 8637,
    8844, 8683, 8846, 8847, 8548, 8849]"

definition ts_primary_state_ids_59 :: "nat list" where "ts_primary_state_ids_59 = [
    8850, 8851, 8852, 8853, 8854, 8855, 8856, 8857, 8858, 8859, 8860, 8861, 8862, 8863, 8864, 8865,
    8866, 8867, 8868, 8869, 8870, 8871, 8872, 8873, 8874, 8875, 8876, 8877, 8878, 8879, 8880, 8881,
    8882, 8883, 8884, 8885, 8876, 8717, 8846, 8847, 8718, 8719, 8720, 8721, 8722, 8723, 8724, 8725,
    8726, 8727, 8728, 8729, 8730, 8731, 8732, 8733, 8734, 8735, 8736, 8737, 8738, 8739, 8740, 8741,
    8742, 8743, 8744, 8745, 8746, 8747, 8748, 8749, 8750, 8751, 8752, 8753, 8754, 8698, 8701, 8755,
    8756, 8757, 8758, 8759, 8760, 8761, 8762, 8699, 8763, 8764, 8885, 8766, 8767, 8768, 8769, 8770,
    8771, 8772, 8700, 8773, 8774, 8775, 8776, 8777, 8778, 8779, 8780, 8781, 8782, 8783, 8784, 8785,
    8786, 8787, 8788, 8789, 8702, 8790, 8791, 8792, 8703, 8793, 8794, 8795, 8796, 8797, 8798, 8799,
    8800, 8801, 8802, 8803, 8804, 8805, 8806, 8807, 8808, 8809, 8810, 8811, 8812, 8711, 8813, 8814,
    8815, 8816, 8817, 8818, 8819, 8820]"

definition ts_primary_state_ids_60 :: "nat list" where "ts_primary_state_ids_60 = [
    8821, 8822, 8846, 8823, 8824, 8825, 8847, 8704, 8705, 8665, 8706, 8707, 8015, 8708, 8709, 8639,
    8634, 8846, 8847, 8710, 7969, 8712, 8844, 8713, 8677, 8714, 8665, 8635, 7970, 8012, 8635, 8639,
    8701, 8647, 8715, 8716, 8717, 8711, 8718, 8647, 8719, 8720, 8721, 8722, 8723, 8724, 8725, 8726,
    8634, 8727, 8728, 8729, 8686, 8730, 8687, 8688, 8731, 8732, 8733, 8690, 9060, 9060, 8686, 8697,
    8653, 8687, 8634, 9060, 8734, 8735, 8635, 8736, 8737, 8738, 8739, 8740, 8741, 8742, 8743, 8744,
    8745, 8746, 8747, 8748, 8749, 8750, 8751, 8752, 8753, 8754, 8688, 8755, 8690, 8618, 8756, 8757,
    8758, 8625, 8759, 8844, 8760, 8761, 8762, 8763, 8019, 8625, 9060, 8618, 9060, 8764, 8885, 8766,
    8767, 8768, 8769, 8770, 8771, 8772, 8773, 8774, 8775, 8776, 8777, 8778, 8779, 8780, 8701, 8781,
    8711, 8782, 8783, 8784, 8785, 8786, 8787, 8788, 8789, 8790, 8697, 8698, 8699, 8700, 8702, 8703,
    8704, 8705, 8706, 8707, 8708, 8709]"

definition ts_primary_state_ids_61 :: "nat list" where "ts_primary_state_ids_61 = [
    8710, 8712, 8713, 8714, 8715, 8716, 8717, 8718, 8719, 8720, 8721, 8722, 8723, 8724, 8725, 8726,
    8727, 8728, 8729, 8730, 8731, 8732, 8733, 8734, 8735, 8736, 8737, 8738, 8739, 8740, 8791, 8741,
    8742, 8743, 8744, 8745, 8746, 8747, 8748, 8749, 8750, 8751, 8752, 8753, 8754, 8755, 8756, 8757,
    8758, 8792, 8759, 8760, 9060, 8762, 8763, 8764, 8885, 8766, 8767, 8768, 8769, 8770, 8771, 8772,
    8773, 8774, 8775, 8776, 8777, 8778, 8779, 8780, 8781, 8782, 8783, 8784, 8785, 8786, 8787, 8788,
    8789, 8790, 8791, 8792, 8793, 8794, 8795, 8796, 8797, 8798, 8799, 8800, 8801, 8802, 8803, 8804,
    8805, 8806, 8807, 8808, 8809, 8810, 8811, 8812, 8813, 8814, 8815, 8816, 8817, 8818, 8819, 8820,
    8821, 8822, 8823, 8824, 8825, 8677, 8647, 8793, 8686, 8794, 8795, 9060, 8639, 8796, 8014, 8797,
    8798, 8849, 8799, 8800, 8801, 8690, 8850, 8851, 8012, 8802, 8852, 8853, 8854, 8855, 8803, 8856,
    8653, 8804, 8857, 8858, 8805, 8859]"

definition ts_primary_state_ids_62 :: "nat list" where "ts_primary_state_ids_62 = [
    8860, 8618, 8861, 8862, 8863, 8864, 8865, 8806, 8866, 8867, 8868, 8014, 8687, 8807, 8869, 8870,
    8871, 8872, 8873, 8874, 8875, 8876, 8877, 8878, 8688, 8808, 8879, 8880, 8881, 8882, 8625, 8883,
    8019, 8809, 8810, 8884, 8849, 8850, 8811, 8851, 8852, 8853, 8854, 8855, 8856, 8857, 8858, 8859,
    8860, 8861, 8862, 8863, 8864, 8865, 9060, 8866, 8867, 8868, 8869, 8870, 8871, 8872, 8873, 8874,
    8875, 8665, 8876, 8877, 8878, 8879, 8880, 8881, 8882, 8883, 8884, 8653, 8812, 8813, 8814, 8815,
    8816, 8817, 8818, 8819, 8820, 8821, 8822, 8823, 8824, 8825, 8015, 8697, 8698, 8016, 8699, 7977,
    8700, 8702, 8017, 8703, 8704, 8705, 8706, 8707, 8708, 8709, 8710, 8712, 8713, 8714, 8715, 8849,
    8016, 8850, 8851, 8852, 8853, 8854, 8855, 8856, 8857, 8858, 8859, 8860, 8861, 8862, 8863, 8864,
    8865, 8866, 8867, 8868, 8017, 8869, 8870, 8871, 8872, 8873, 8874, 8875, 8677, 8877, 8878, 8879,
    8880, 8881, 8882, 8883, 8884, 8844]"

definition ts_primary_state_ids_63 :: "nat list" where "ts_primary_state_ids_63 = [
    8716, 8761, 8064, 8142, 8114, 9455, 8105, 8107, 9455, 8135, 8123, 8136, 8137, 8108, 9464, 8124,
    9466, 9466, 8125, 9455, 8126, 9455, 8127, 8143, 9455, 8144, 8128, 8129, 8130, 9455, 9480, 8131,
    9466, 8145, 9484, 8132, 9480, 8098, 9464, 8844, 9464, 9455, 8098, 8175, 9494, 9480, 8065, 8105,
    9455, 8111, 8107, 8108, 8134, 8112, 9466, 8844, 8113, 8111, 9455, 8112, 8113, 8114, 8123, 8124,
    8125, 8126, 8127, 8128, 8129, 8130, 8131, 8132, 8175, 8134, 8135, 8136, 8137, 8133, 8138, 8139,
    8062, 8140, 8063, 8141, 8142, 8143, 8144, 8145, 8133, 8062, 8063, 8064, 8065, 8138, 8139, 8140,
    8141, 9464, 9480, 9455, 9550, 9551, 9552, 8014, 9552, 9555, 9556, 9555, 9558, 9551, 9558, 9552,
    9555, 9563, 9558, 9565, 9555, 8844, 9555, 9552, 8012, 8351, 9550, 9558, 9555, 9558, 9558, 9550,
    9565, 8019, 8016, 9558, 9552, 9552, 8017, 8030, 9586, 9565, 9565, 9565, 9555, 8014, 8012, 9551,
    9565, 9565, 8351, 8015, 9552, 8017]"

definition ts_primary_state_ids_64 :: "nat list" where "ts_primary_state_ids_64 = [
    9555, 9558, 9565, 9552, 9555, 9605, 9552, 8015, 9565, 9555, 9552, 9551, 9552, 9551, 9550, 9615,
    8016, 8014, 8015, 9558, 9551, 9555, 8016, 9623, 8019, 8012, 8017, 9551, 8019, 9629, 8351, 9551,
    9632, 8030, 9634, 9634, 9636, 9634, 9634, 8030, 9640, 9641, 9642, 8030, 8015, 8012, 8016, 7969,
    9648, 9649, 9649, 7977, 9652, 9653, 9654, 9655, 9656, 9649, 9658, 9659, 9660, 9649, 9662, 8017,
    9664, 9649, 8014, 7969, 9649, 9669, 9670, 9649, 9672, 7970, 8019, 9649, 7970, 9677, 9649, 8014,
    9649, 9681, 8019, 8015, 8016, 9685, 7977, 8017, 8012, 8873, 8849, 9691, 9652, 9669, 9641, 8863,
    9696, 8864, 9698, 8865, 9700, 8866, 8853, 8867, 9704, 9696, 8883, 9707, 8854, 8855, 8856, 9652,
    9712, 9707, 9698, 7969, 8019, 8857, 8858, 9655, 8850, 8012, 7970, 9654, 9691, 8868, 9726, 9727,
    9728, 9698, 8851, 9731, 8859, 9733, 9652, 8884, 8869, 9737, 9707, 8014, 9740, 8870, 8871, 8861,
    8015, 9745, 9746, 9747, 8852, 8016]"

definition ts_primary_state_ids_65 :: "nat list" where "ts_primary_state_ids_65 = [
    8880, 8872, 9696, 9753, 8881, 8862, 9664, 8882, 9712, 8874, 8875, 7977, 8017, 8876, 8877, 8878,
    9766, 9767, 8879, 9769, 8860, 8719, 8879, 9773, 8885, 8856, 8766, 8860, 8767, 9773, 8768, 8769,
    8770, 9672, 8762, 8849, 8771, 8750, 8751, 8772, 9790, 8703, 9792, 8880, 9767, 8881, 8882, 8859,
    9798, 9790, 9792, 8861, 8883, 8860, 8773, 8869, 8774, 8775, 8698, 9809, 8869, 8749, 9812, 8870,
    8862, 9815, 8854, 8871, 8872, 8759, 8853, 8776, 8777, 8778, 8884, 8854, 8779, 9641, 8705, 8780,
    8781, 8753, 8763, 9773, 9834, 9835, 8782, 9790, 8706, 8712, 8883, 8870, 8872, 8871, 8707, 9677,
    8866, 8783, 8850, 9792, 8862, 8867, 8853, 9812, 8784, 8754, 8884, 8863, 8713, 9859, 8884, 9861,
    9798, 8872, 9864, 8785, 9866, 8786, 8869, 8873, 8874, 8760, 9872, 8873, 8874, 9875, 8873, 8874,
    9878, 8875, 9880, 8715, 8716, 9883, 8875, 8864, 9835, 8752, 8879, 8717, 9834, 9767, 8875, 8851,
    8718, 8857, 9834, 8882, 8787, 8858]"

definition ts_primary_state_ids_66 :: "nat list" where "ts_primary_state_ids_66 = [
    8714, 8868, 8788, 9812, 9904, 8876, 8789, 8790, 9908, 8863, 8876, 9672, 8877, 8704, 8720, 8742,
    8721, 8878, 9918, 9685, 8854, 8868, 8858, 8722, 8791, 8855, 8723, 8792, 8877, 8793, 8699, 8864,
    8724, 8708, 9773, 8794, 8856, 8725, 8865, 8700, 8878, 8795, 9672, 8876, 8726, 8861, 8796, 9792,
    9948, 8797, 9792, 8747, 8798, 8799, 8800, 8727, 8755, 8866, 8801, 8802, 8728, 8857, 8803, 8709,
    9964, 8877, 8858, 8855, 9968, 8850, 8878, 8849, 8804, 8743, 8805, 8748, 8852, 9685, 9978, 8862,
    8851, 9981, 8806, 9948, 9984, 8744, 8863, 9773, 8864, 9984, 8807, 9685, 9992, 8710, 8808, 9773,
    9773, 8809, 8849, 8729, 8810, 9792, 8870, 8697, 8811, 8730, 9792, 8812, 9992, 9834, 8745, 8881,
    9767, 10013, 9984, 8761, 9798, 9992, 10018, 8871, 8746, 8813, 8731, 8814, 8732, 8815, 8866,
    8850, 8867, 8816, 8867, 9641, 8879, 9835, 8733, 8852, 10036, 8857, 8851, 10039, 8817, 9798,
    10042, 8818, 8819, 8764, 8856, 8820, 8865, 8821]"

definition ts_primary_state_ids_67 :: "nat list" where "ts_primary_state_ids_67 = [
    9880, 8822, 9677, 8859, 8823, 8880, 8824, 8825, 9812, 10059, 8868, 8860, 8881, 8734, 8882,
    9773, 9978, 8756, 8735, 9677, 8757, 9809, 10018, 8861, 9835, 8702, 8736, 9981, 9908, 9948,
    8852, 8758, 9792, 8737, 8859, 8738, 8883, 8739, 8853, 8865, 8740, 8741, 8880, 8855, 8772, 8724,
    10096, 10097, 8814, 8815, 9809, 10101, 8816, 10103, 8817, 10105, 8725, 10107, 8703, 10109,
    10110, 8787, 10112, 10113, 10114, 8726, 10116, 10117, 10118, 10119, 10120, 10121, 10122, 8727,
    10124, 8728, 8729, 8730, 7996, 10101, 8697, 10131, 10132, 8731, 10134, 10135, 8732, 9733,
    10105, 9655, 10140, 10141, 10107, 10143, 8697, 8733, 10146, 8788, 8797, 8798, 8799, 8800,
    10152, 8801, 8802, 8803, 8804, 8805, 8806, 8807, 10160, 10161, 8808, 8809, 8810, 10165, 8811,
    10167, 8699, 8812, 8813, 8814, 8815, 8816, 10174, 10175, 10176, 8817, 8704, 7999, 10180, 8705,
    10182, 10131, 10184, 10185, 10186, 8706, 10188, 8707, 10190, 10191, 10192, 10193, 10194, 10195,
    10196, 10121, 10135, 10199]"

definition ts_primary_state_ids_68 :: "nat list" where "ts_primary_state_ids_68 = [
    10200, 9866, 8700, 10203, 10204, 10205, 10206, 10207, 10208, 10209, 10210, 10211, 10212, 10213,
    10214, 10215, 10216, 10217, 10218, 9864, 10220, 8698, 10222, 10223, 10224, 8789, 8756, 10227,
    10228, 8790, 8791, 10231, 8708, 10233, 8702, 10143, 10152, 10167, 10182, 10200, 10220, 10227,
    10242, 10243, 10244, 10245, 10246, 10247, 10248, 10249, 10250, 10251, 8709, 8792, 10242, 10255,
    9670, 10257, 9878, 10259, 10260, 10261, 8757, 10263, 8699, 8700, 8710, 10267, 8703, 10269,
    10270, 10271, 10272, 10273, 10274, 10275, 10276, 10277, 10243, 10279, 10280, 10281, 10282,
    9670, 8702, 10285, 10286, 8703, 8712, 10289, 10290, 10291, 8793, 10293, 10223, 10267, 10296,
    10297, 10298, 10203, 10244, 10246, 10257, 10286, 10298, 10305, 10306, 10307, 10308, 9864,
    10310, 8794, 9731, 9861, 8704, 8705, 8713, 8706, 8697, 8707, 10320, 9670, 10322, 10323, 10324,
    10325, 10326, 10327, 10328, 10329, 10330, 10331, 10332, 10333, 10334, 10335, 10336, 10337,
    10338, 10339, 10097, 10103, 10110, 10114, 10120, 10122, 10124, 10305, 10348, 10323]"

definition ts_primary_state_ids_69 :: "nat list" where "ts_primary_state_ids_69 = [
    8708, 10351, 10116, 8709, 9733, 10199, 10218, 10222, 10228, 10245, 10255, 10263, 10282, 10290,
    10293, 10310, 10348, 10351, 10368, 10369, 10370, 10371, 10372, 10109, 10132, 10134, 10141,
    10146, 10174, 10188, 10259, 10381, 10289, 8714, 10384, 10385, 10386, 10387, 10388, 10389,
    10390, 10391, 10392, 10393, 10394, 10395, 10396, 10397, 10398, 10399, 10400, 10401, 10402,
    10403, 9655, 10405, 10406, 10407, 10408, 10409, 10113, 10411, 10412, 10381, 8710, 10415, 8712,
    8713, 10306, 10117, 10368, 8714, 10269, 10096, 10118, 10119, 8715, 8716, 10428, 10140, 8717,
    10307, 10432, 8718, 10296, 10435, 9866, 8719, 8720, 10405, 8721, 8722, 8723, 8724, 8795, 8725,
    8726, 8727, 8728, 8729, 8730, 8758, 8796, 10453, 10454, 8731, 8818, 8819, 10308, 8732, 8820,
    8821, 8822, 10101, 8733, 8823, 8824, 9878, 8785, 10469, 10160, 8818, 8819, 10473, 10474, 8820,
    8821, 8822, 10478, 8823, 8824, 8734, 8735, 8736, 10411, 9875, 8737, 8738, 10247, 10117, 10118,
    9918, 10119, 8739, 8740, 10495, 8741, 10297, 8742, 8743]"

definition ts_primary_state_ids_70 :: "nat list" where "ts_primary_state_ids_70 = [
    8744, 8745, 8746, 8747, 8748, 8749, 8750, 8751, 8752, 8753, 8754, 10435, 10105, 8755, 10184,
    10107, 8756, 8757, 8758, 8759, 8760, 10521, 8761, 8762, 8763, 10385, 8764, 8885, 8766, 8767,
    8768, 10531, 8769, 8770, 10534, 8771, 10536, 10161, 8772, 8773, 8774, 8775, 8776, 8777, 10544,
    8778, 9672, 8780, 8781, 8782, 8783, 8784, 10552, 10435, 10204, 8785, 8759, 9685, 8786, 8787,
    8788, 8789, 10205, 8790, 8791, 8792, 10185, 8793, 8794, 10270, 8795, 8715, 8796, 8716, 8797,
    8764, 8798, 10112, 8885, 8799, 8766, 8760, 8800, 8767, 8768, 8769, 8801, 10206, 8770, 8802,
    10590, 8771, 8803, 8804, 8805, 8772, 8806, 8807, 8808, 8717, 8809, 8810, 8773, 8774, 8811,
    8775, 8776, 10386, 8777, 8812, 8778, 8779, 8780, 8813, 8781, 8782, 8814, 8783, 8815, 8816,
    10096, 8817, 8784, 8785, 8818, 10207, 8786, 8819, 8820, 8821, 8822, 8787, 8823, 8788, 8824,
    8825, 8718, 8789, 9866, 8790, 8791, 8719, 8792, 8720, 8721, 8793, 10387, 8722, 8723, 8794]"

definition ts_primary_state_ids_71 :: "nat list" where "ts_primary_state_ids_71 = [
    8724, 10388, 8725, 10320, 10208, 8726, 8727, 8728, 8729, 8795, 10186, 8730, 10389, 8796, 8731,
    8732, 10666, 10271, 8733, 10669, 10324, 10412, 10248, 10673, 10325, 10272, 10209, 8698, 10289,
    10273, 10531, 10140, 10390, 10326, 8825, 10391, 8761, 10274, 10392, 10249, 9733, 10101, 8786,
    10160, 9655, 10327, 10696, 8698, 10393, 10275, 8762, 10328, 10495, 10105, 10107, 10406, 10112,
    10192, 10329, 10531, 10394, 10250, 10395, 10112, 10193, 10590, 10330, 8763, 10718, 10719,
    10276, 10101, 10105, 10107, 10112, 10396, 10726, 10331, 10277, 10495, 10397, 10251, 10279,
    10194, 10726, 10453, 10736, 10454, 10332, 8734, 8735, 10210, 8736, 8737, 8738, 8739, 8740,
    8741, 9677, 8742, 8743, 8744, 10752, 8745, 8746, 8747, 8748, 8749, 8750, 8751, 8752, 8753,
    10762, 10211, 8754, 8755, 10766, 10767, 10212, 10140, 8756, 8757, 10453, 8758, 8759, 8760,
    8761, 10454, 8762, 10369, 10213, 10195, 10101, 10783, 8763, 10160, 9861, 10214, 10495, 10105,
    10215, 10590, 10107, 9878, 8715, 10398, 10796, 10797, 10216, 10531]"

definition ts_primary_state_ids_72 :: "nat list" where "ts_primary_state_ids_72 = [
    10281, 10801, 8734, 8735, 10399, 8736, 8737, 8738, 8739, 8740, 10190, 8716, 8741, 8742, 8743,
    8744, 10400, 8745, 8746, 8747, 10401, 8748, 8749, 10402, 10112, 8717, 10175, 10590, 10217,
    8704, 8705, 8706, 8718, 8707, 10407, 10835, 10836, 10837, 8708, 8709, 10333, 10408, 8797,
    10334, 8710, 8798, 10335, 8799, 8800, 10849, 8712, 10336, 8801, 10176, 8713, 10101, 8802, 8803,
    8804, 8805, 10860, 10337, 8806, 10105, 8719, 10107, 8807, 8714, 10338, 10370, 8720, 8721, 8808,
    10112, 10371, 8699, 10196, 8722, 8809, 8700, 8723, 10372, 8810, 10409, 10339, 8811, 10101,
    8750, 10105, 10107, 8751, 10112, 8752, 10403, 8753, 8812, 10140, 10160, 10101, 8764, 10105,
    8885, 10107, 8766, 10112, 8767, 8768, 8769, 8770, 8771, 8754, 8784, 10191, 8773, 8825, 8774,
    8775, 8776, 8777, 8813, 8778, 10101, 10105, 8702, 10107, 8779, 10112, 8780, 8781, 10140, 10160,
    10140, 10160, 8782, 8755, 10140, 8783, 10160, 8779, 10939, 10940, 10941, 10942, 10943, 10944,
    10944, 10946, 10947, 10948, 10949]"

definition ts_primary_state_ids_73 :: "nat list" where "ts_primary_state_ids_73 = [
    10950, 10951, 7999, 10322, 10954, 10955, 10956, 10943, 10944, 10947, 10960, 10961, 10962,
    10944, 9984, 10965, 10966, 10967, 10968, 10969, 10970, 10971, 10969, 10973, 7878, 10965, 10976,
    10977, 10978, 10979, 10960, 10976, 10943, 10983, 10984, 7996, 10944, 10987, 10835, 10849,
    10990, 10970, 10978, 10993, 10977, 10995, 10996, 10997, 10998, 10999, 10968, 11001, 10801,
    11003, 11004, 10947, 11006, 11004, 11008, 11009, 11010, 11011, 11012, 11013, 11014, 10976,
    10977, 11017, 11018, 10521, 10534, 10536, 10947, 11023, 10955, 10961, 10939, 11027, 11028,
    11029, 11030, 11031, 11032, 11033, 11034, 11035, 11036, 11037, 11038, 10990, 10947, 11041,
    11042, 11043, 11044, 11045, 11046, 11043, 10943, 11049, 10224, 10944, 9733, 10987, 11054,
    11055, 11056, 10835, 10849, 10943, 10970, 11061, 11062, 10947, 8033, 11065, 10965, 11067,
    10478, 11069, 11010, 11071, 11072, 10521, 11074, 11075, 10835, 10849, 11031, 10534, 10536,
    11081, 11082, 11083, 10970, 11033, 11086, 11035, 11088, 11044, 10536, 10943, 10944, 10970,
    11061, 10944, 11096, 10947, 11098, 11099]"

definition ts_primary_state_ids_74 :: "nat list" where "ts_primary_state_ids_74 = [
    11100, 11045, 11062, 11103, 10946, 11012, 11065, 10801, 11108, 11109, 11110, 11017, 11112,
    11113, 10948, 11115, 11116, 11117, 10993, 10996, 10944, 11013, 10837, 11018, 10949, 10950,
    10943, 10944, 11128, 10943, 10944, 11110, 10291, 11112, 10970, 11113, 10951, 11115, 10947,
    11139, 11116, 11117, 11001, 11143, 11103, 11145, 11146, 11065, 10801, 10966, 11150, 11082,
    10947, 11083, 11046, 10973, 11156, 11003, 11065, 10970, 11075, 11161, 11086, 8035, 10943,
    10944, 10970, 10943, 10947, 10261, 11071, 10998, 8032, 10999, 11054, 11055, 11088, 11069,
    11178, 10962, 10995, 11181, 11009, 11014, 10521, 10534, 8034, 10978, 11188, 11189, 11190,
    11191, 11192, 11193, 11143, 11103, 11145, 11146, 11198, 11199, 11200, 11201, 11202, 11203,
    11204, 7878, 11206, 11207, 11208, 11209, 11037, 11041, 11212, 11067, 11214, 11096, 11216,
    11098, 11218, 11219, 11198, 11221, 11222, 11223, 11224, 11225, 11226, 11227, 11228, 10954,
    11230, 11231, 11023, 11027, 11029, 11034, 11036, 11237, 11038, 11239, 11240, 11241, 11242,
    11243, 11244, 11245, 11246, 11247, 11248, 11249]"

definition ts_primary_state_ids_75 :: "nat list" where "ts_primary_state_ids_75 = [
    11250, 11251, 11252, 11253, 11254, 11255, 11256, 11161, 11258, 11259, 11260, 11261, 11262,
    11263, 11264, 11265, 11266, 11267, 11268, 11269, 11270, 10837, 11272, 11273, 11274, 11275,
    11258, 11247, 11278, 11279, 11280, 11281, 11282, 10942, 11284, 11285, 11286, 11287, 11178,
    11289, 11282, 11291, 11292, 11293, 11294, 11295, 11296, 11297, 11298, 11299, 11250, 11301,
    11302, 11259, 11304, 11274, 11227, 11307, 11308, 11309, 11310, 11278, 11312, 11296, 11314,
    11315, 11316, 11317, 11318, 11319, 11320, 11321, 11322, 11204, 11324, 11286, 11326, 11327,
    11328, 11318, 11279, 11331, 11332, 11321, 11192, 11335, 11336, 11337, 11338, 11339, 11340,
    11341, 11342, 11343, 11299, 11317, 11214, 11340, 11198, 11349, 11350, 11351, 11352, 11353,
    11354, 11355, 11356, 11207, 10261, 11359, 11360, 11361, 11362, 11363, 11364, 11365, 11366,
    11367, 11368, 11369, 11370, 11371, 11372, 11373, 11374, 11260, 11023, 11027, 11378, 11379,
    11029, 11381, 11006, 11383, 11384, 11199, 11386, 11008, 10967, 10971, 10983, 11350, 11011,
    11393, 11394, 11322, 11396, 11034, 11398, 11036]"

definition ts_primary_state_ids_76 :: "nat list" where "ts_primary_state_ids_76 = [
    11400, 11028, 11042, 11049, 11056, 11265, 11406, 11407, 11408, 11203, 11038, 11411, 11412,
    11413, 11414, 11393, 11416, 11417, 11267, 11218, 11420, 11200, 11326, 11328, 11424, 11425,
    11426, 11427, 11378, 11429, 11430, 11431, 11351, 11198, 11434, 7884, 11281, 11273, 11270,
    11439, 11440, 11441, 11442, 11443, 11444, 11445, 11446, 11272, 11342, 11336, 11450, 11451,
    11037, 11453, 11041, 11455, 11456, 11067, 11096, 11459, 11098, 11338, 11462, 11463, 11209,
    11465, 11202, 11353, 11468, 11248, 11381, 11471, 11427, 11341, 11474, 11475, 11354, 11459,
    11198, 11479, 11480, 11453, 11349, 11483, 11356, 11485, 11486, 11302, 11488, 11455, 11490,
    11491, 11492, 11493, 11494, 11495, 11240, 11188, 11339, 11499, 11191, 11501, 11355, 11503,
    11261, 11359, 11206, 11507, 11143, 11037, 11429, 11041, 11067, 11096, 11098, 11515, 11468,
    11517, 11145, 11519, 11520, 11222, 11522, 11146, 11337, 11363, 11364, 11379, 11208, 11479,
    11242, 11531, 11532, 11425, 11366, 11535, 11434, 11443, 11538, 11456, 11540, 11281, 11360,
    11543, 11226, 11361, 11244, 11367, 11548, 11237]"

definition ts_primary_state_ids_77 :: "nat list" where "ts_primary_state_ids_77 = [
    11550, 11551, 11552, 11494, 11554, 11301, 11556, 11320, 11417, 11559, 11560, 11561, 11493,
    11563, 11308, 11565, 11566, 11293, 11568, 11569, 11307, 11507, 11572, 11573, 11324, 11030,
    7882, 11365, 7881, 11225, 11190, 11243, 11230, 11285, 11314, 11262, 11319, 11587, 11362, 11424,
    11343, 11591, 11592, 11430, 11543, 11280, 11368, 11471, 11598, 11446, 11295, 11310, 11602,
    11475, 10967, 11369, 10971, 11315, 11499, 11609, 10983, 11538, 11231, 11011, 11540, 11224,
    11548, 11241, 11028, 11552, 11198, 11042, 11474, 11143, 11103, 11049, 11371, 11056, 11556,
    11245, 11591, 11178, 11463, 11178, 11559, 11145, 11352, 11637, 11146, 11639, 11640, 11383,
    11261, 11643, 11239, 11384, 11386, 11431, 11566, 11640, 11650, 11246, 11372, 11653, 11201,
    11655, 11394, 11657, 11198, 11659, 11660, 11490, 11363, 11653, 11587, 11503, 11364, 11667,
    11655, 10967, 11515, 11657, 11672, 11396, 11667, 11659, 11398, 10971, 11406, 11264, 11444,
    11681, 11212, 11439, 11408, 11592, 10983, 11216, 11688, 11011, 11412, 11441, 11292, 11414,
    11694, 11420, 11028, 11697, 11327, 11363]"

definition ts_primary_state_ids_78 :: "nat list" where "ts_primary_state_ids_78 = [
    11364, 11519, 11042, 7886, 11373, 11407, 11706, 11707, 11281, 11709, 11249, 11483, 11712,
    11251, 11416, 11049, 11254, 11480, 11718, 11719, 11486, 11445, 11056, 11491, 11724, 11198,
    11440, 11551, 11451, 11266, 11198, 11198, 11565, 11261, 11219, 11312, 11517, 11023, 11027,
    11739, 11029, 11034, 11450, 11697, 11724, 11223, 11563, 11256, 11748, 11749, 11750, 11535,
    11520, 11572, 11275, 11289, 11495, 11757, 11332, 11228, 11569, 11522, 11485, 11719, 11688,
    11554, 11426, 11681, 11374, 11400, 11411, 11771, 11492, 11488, 11709, 11775, 11739, 11771,
    11253, 11560, 11573, 11316, 11672, 11750, 11465, 11785, 11660, 11193, 11785, 11221, 11749,
    11269, 11335, 11793, 11036, 11263, 11598, 11462, 11442, 11038, 11775, 11294, 11304, 11602,
    11694, 11609, 11806, 11807, 11808, 11809, 11810, 11811, 11812, 11813, 11814, 11815, 11816,
    11817, 7882, 11819, 11810, 11821, 11819, 11823, 11824, 11825, 11826, 11827, 11812, 11829,
    10224, 11831, 11832, 11833, 11834, 11806, 4004, 11837, 11838, 11839, 11840, 11841, 11842,
    11843, 11284, 11287, 11846, 11297, 11848, 11848]"

definition ts_primary_state_ids_79 :: "nat list" where "ts_primary_state_ids_79 = [
    11850, 11840, 11852, 11853, 11854, 11815, 11856, 11857, 11858, 11841, 11817, 11826, 11862,
    11863, 11838, 11865, 11866, 11867, 11868, 11843, 11870, 11871, 11807, 11846, 11874, 11875,
    10291, 11877, 10666, 11879, 11808, 11881, 11882, 11883, 11812, 11885, 11886, 11875, 11888,
    11832, 11890, 11825, 11892, 11829, 10669, 11879, 11831, 11867, 11840, 11899, 11900, 11901,
    11825, 11903, 11904, 11809, 11906, 11865, 11842, 11909, 10469, 11839, 11912, 11840, 11914,
    11915, 11916, 11917, 11858, 10473, 4005, 11921, 11917, 10474, 11848, 11925, 11926, 11806,
    11928, 7996, 11838, 11931, 11811, 11933, 11874, 11900, 11936, 11937, 11829, 11939, 11936,
    11941, 11942, 11943, 7996, 11839, 11946, 11840, 7886, 11858, 11917, 11914, 11937, 11807, 11808,
    11955, 11915, 11957, 11848, 11892, 11809, 11961, 11853, 11811, 11532, 11965, 11815, 11831,
    11912, 11862, 11955, 11971, 11972, 11848, 11974, 11925, 11955, 11903, 11978, 10767, 11955,
    11843, 11843, 11916, 11837, 11955, 11917, 11899, 11862, 11839, 11814, 11879, 11846, 11993,
    11863, 11865, 11856, 11997, 11857, 11892]"

definition ts_primary_state_ids_80 :: "nat list" where "ts_primary_state_ids_80 = [
    11848, 11819, 11904, 11856, 12004, 11881, 11846, 12007, 11826, 11883, 11856, 11812, 11838,
    11826, 11806, 11857, 12016, 11866, 12018, 11885, 11862, 11839, 11748, 11879, 12024, 11843,
    11819, 11846, 11857, 11848, 11862, 11856, 11881, 11857, 7881, 11888, 11914, 11939, 11915,
    11030, 11993, 11856, 11857, 11916, 12018, 11862, 12046, 11834, 11866, 12049, 11881, 11812,
    12052, 11955, 11856, 11875, 11832, 11857, 11879, 11881, 11883, 11885, 11888, 11832, 10291,
    11825, 12066, 11829, 11862, 11831, 11866, 11926, 11867, 11928, 11748, 7884, 11937, 11840,
    11501, 11883, 11858, 11812, 11862, 11931, 12084, 6762, 11903, 11917, 12088, 11832, 11883,
    12088, 11862, 11839, 11926, 11531, 11928, 12097, 11933, 11413, 11931, 11865, 12102, 12103,
    11870, 11843, 12106, 6758, 11925, 11885, 12110, 11933, 11853, 12113, 11806, 11875, 11867,
    10544, 11819, 11955, 11888, 11882, 12122, 11914, 11937, 11331, 11814, 11915, 11370, 11879,
    11875, 12131, 11916, 11858, 11838, 11846, 11917, 11926, 11928, 11931, 11875, 11881, 11933,
    11874, 11900, 11832, 11937, 11972, 11939, 11883]"

definition ts_primary_state_ids_81 :: "nat list" where "ts_primary_state_ids_81 = [
    11879, 11942, 11807, 11808, 11809, 11811, 12156, 12157, 11912, 11885, 4006, 11925, 11852, 8033,
    12164, 11874, 12166, 11824, 11814, 11817, 12066, 11900, 11819, 11826, 11812, 11819, 11838,
    11848, 11843, 11881, 11854, 11839, 11843, 11846, 12184, 11883, 12186, 11856, 11857, 11885,
    11942, 11862, 12192, 12193, 12102, 11888, 11875, 11832, 11879, 11881, 11858, 11883, 11885,
    10224, 11888, 11832, 11885, 11840, 11846, 12156, 11888, 11826, 4012, 11858, 12214, 11917,
    11856, 11937, 11189, 11832, 11875, 11888, 10291, 11839, 12224, 11814, 11883, 11819, 11832,
    11904, 11840, 11937, 11858, 12233, 11917, 11284, 11937, 11748, 11885, 11814, 11840, 11858,
    11826, 11287, 11917, 11879, 11937, 11939, 11955, 11297, 4015, 11955, 11881, 11841, 11903,
    12186, 11812, 11883, 11842, 12193, 11838, 11885, 12110, 11857, 11806, 12156, 11840, 11978,
    11858, 11839, 11917, 10673, 11937, 11997, 11912, 11287, 11942, 12277, 11955, 12279, 10224,
    11826, 11888, 11888, 11838, 12285, 12286, 12287, 12288, 4004, 12290, 12291, 12292, 12293,
    12294, 12295, 12286, 12290, 12298, 12299]"

definition ts_primary_state_ids_82 :: "nat list" where "ts_primary_state_ids_82 = [
    12294, 12301, 12302, 12303, 12304, 4005, 12306, 12106, 12308, 12309, 12294, 12311, 4012, 12313,
    12314, 12315, 12316, 12317, 12318, 12319, 12290, 12285, 12294, 12323, 12324, 12325, 12326,
    12298, 12286, 12329, 12304, 12316, 12332, 12192, 12313, 12046, 12336, 12337, 12338, 12290,
    12340, 8032, 12342, 12304, 12214, 12345, 12329, 12347, 11813, 11816, 12290, 12308, 12352,
    12316, 12332, 12290, 12356, 12290, 12233, 10956, 12360, 12298, 12362, 12363, 12364, 10956,
    12308, 4006, 12368, 12290, 12291, 12371, 11901, 11813, 12374, 12374, 12374, 12377, 12378,
    12309, 12293, 8035, 12382, 12383, 12374, 12385, 12386, 12329, 12342, 12332, 12390, 12374, 8032,
    12393, 11868, 12374, 8035, 12397, 10956, 8034, 12400, 12401, 12402, 12403, 12332, 12313, 12406,
    12407, 11816, 12409, 12410, 12411, 12374, 12291, 12414, 12415, 4015, 12417, 12418, 12419,
    12288, 12421, 12422, 12301, 12424, 12425, 12426, 12294, 12304, 12402, 12430, 12431, 12432,
    12315, 12410, 12304, 8034, 12383, 12286, 12439, 12292, 12313, 12442, 12443, 8033, 12415, 12446,
    12316, 12448, 12374]"

definition ts_primary_state_ids_83 :: "nat list" where "ts_primary_state_ids_83 = [
    12294, 12304, 12294, 12304, 12352, 12308, 12456, 12294, 12458, 12304, 12378, 12329, 12462,
    12463, 12464, 12465, 12466, 12467, 12468, 12469, 12470, 12471, 12472, 12473, 12474, 12475,
    12476, 12477, 12478, 6758, 12480, 12481, 12482, 12483, 12484, 12485, 12475, 12487, 12472,
    12489, 12485, 12491, 12492, 12493, 12494, 12495, 12496, 12497, 12496, 12499, 12500, 12463,
    12472, 12474, 12504, 12475, 12506, 12507, 12485, 12476, 12466, 12511, 12512, 12513, 12470,
    12515, 12475, 12491, 12518, 12481, 12470, 12511, 12466, 12474, 12524, 12525, 12526, 12527,
    12528, 12463, 12524, 12531, 6762, 12480, 12485, 12475, 12480, 12515, 12497, 12527, 12540,
    12474, 12480, 12470, 12467, 12545, 12481, 12545, 12548, 12549, 12497, 12485, 12476, 12553,
    12554, 12555, 12556, 9636, 12558, 12466, 12495, 12561, 12472, 12563, 12469, 12565, 12566,
    12567, 12496, 12569, 12570, 12474, 12468, 12526, 12527, 12575, 12576, 12577, 12476, 12563,
    12493, 12581, 12582, 12583, 12584, 12463, 12480, 12567, 12526, 12527, 12527, 12497, 12463,
    12593, 12496, 12466, 12596, 12597, 12598, 12480]"

definition ts_primary_state_ids_84 :: "nat list" where "ts_primary_state_ids_84 = [
    12476, 12601, 12466, 12545, 12604, 12605, 12496, 12495, 12608, 12609, 12493, 12480, 12612,
    12613, 12614, 12615, 12470, 12485, 12545, 12481, 12475, 12527, 12497, 12545, 12624, 12507,
    12474, 12627, 12628, 12480, 12630, 12475, 12582, 12612, 12496, 12635, 12467, 12478, 12472,
    12639, 12598, 12593, 9640, 12527, 12476, 12645, 12527, 12468, 12463, 12649, 12650, 12628,
    12487, 12528, 12496, 12499, 12485, 12481, 12467, 12659, 12639, 12480, 12662, 12496, 12548,
    12665, 12545, 12474, 12472, 12480, 12481, 12569, 12475, 12673, 12472, 12675, 12526, 12540,
    12526, 11868, 12570, 12515, 12570, 12649, 12497, 12685, 12482, 12687, 12688, 12555, 12476,
    12485, 12692, 12598, 12575, 12570, 12601, 12480, 12598, 12475, 12466, 12613, 12466, 12469,
    12556, 12705, 12525, 12513, 12475, 12545, 12475, 12553, 12464, 12497, 12474, 12495, 12463,
    12717, 12688, 12627, 12554, 12545, 12722, 12673, 12481, 12472, 12645, 12727, 12609, 12545,
    12730, 12731, 12497, 12575, 12481, 12466, 12569, 12468, 12463, 12472, 12480, 12741, 12741,
    12493, 12577, 12531, 12467, 12722, 12685, 12476]"

definition ts_primary_state_ids_85 :: "nat list" where "ts_primary_state_ids_85 = [
    12750, 12608, 12475, 12731, 12472, 12576, 12473, 12487]"

definition ts_primary_state_ids :: "nat list" where "ts_primary_state_ids = concat [
    ts_primary_state_ids_0, ts_primary_state_ids_1, ts_primary_state_ids_2, ts_primary_state_ids_3, ts_primary_state_ids_4,
    ts_primary_state_ids_5, ts_primary_state_ids_6, ts_primary_state_ids_7, ts_primary_state_ids_8, ts_primary_state_ids_9,
    ts_primary_state_ids_10, ts_primary_state_ids_11, ts_primary_state_ids_12, ts_primary_state_ids_13, ts_primary_state_ids_14,
    ts_primary_state_ids_15, ts_primary_state_ids_16, ts_primary_state_ids_17, ts_primary_state_ids_18, ts_primary_state_ids_19,
    ts_primary_state_ids_20, ts_primary_state_ids_21, ts_primary_state_ids_22, ts_primary_state_ids_23, ts_primary_state_ids_24,
    ts_primary_state_ids_25, ts_primary_state_ids_26, ts_primary_state_ids_27, ts_primary_state_ids_28, ts_primary_state_ids_29,
    ts_primary_state_ids_30, ts_primary_state_ids_31, ts_primary_state_ids_32, ts_primary_state_ids_33, ts_primary_state_ids_34,
    ts_primary_state_ids_35, ts_primary_state_ids_36, ts_primary_state_ids_37, ts_primary_state_ids_38, ts_primary_state_ids_39,
    ts_primary_state_ids_40, ts_primary_state_ids_41, ts_primary_state_ids_42, ts_primary_state_ids_43, ts_primary_state_ids_44,
    ts_primary_state_ids_45, ts_primary_state_ids_46, ts_primary_state_ids_47, ts_primary_state_ids_48, ts_primary_state_ids_49,
    ts_primary_state_ids_50, ts_primary_state_ids_51, ts_primary_state_ids_52, ts_primary_state_ids_53, ts_primary_state_ids_54,
    ts_primary_state_ids_55, ts_primary_state_ids_56, ts_primary_state_ids_57, ts_primary_state_ids_58, ts_primary_state_ids_59,
    ts_primary_state_ids_60, ts_primary_state_ids_61, ts_primary_state_ids_62, ts_primary_state_ids_63, ts_primary_state_ids_64,
    ts_primary_state_ids_65, ts_primary_state_ids_66, ts_primary_state_ids_67, ts_primary_state_ids_68, ts_primary_state_ids_69,
    ts_primary_state_ids_70, ts_primary_state_ids_71, ts_primary_state_ids_72, ts_primary_state_ids_73, ts_primary_state_ids_74,
    ts_primary_state_ids_75, ts_primary_state_ids_76, ts_primary_state_ids_77, ts_primary_state_ids_78, ts_primary_state_ids_79,
    ts_primary_state_ids_80, ts_primary_state_ids_81, ts_primary_state_ids_82, ts_primary_state_ids_83, ts_primary_state_ids_84,
    ts_primary_state_ids_85]"

lemmas ts_primary_state_ids_chunks =
  ts_primary_state_ids_0_def ts_primary_state_ids_1_def ts_primary_state_ids_2_def ts_primary_state_ids_3_def ts_primary_state_ids_4_def
  ts_primary_state_ids_5_def ts_primary_state_ids_6_def ts_primary_state_ids_7_def ts_primary_state_ids_8_def ts_primary_state_ids_9_def
  ts_primary_state_ids_10_def ts_primary_state_ids_11_def ts_primary_state_ids_12_def ts_primary_state_ids_13_def ts_primary_state_ids_14_def
  ts_primary_state_ids_15_def ts_primary_state_ids_16_def ts_primary_state_ids_17_def ts_primary_state_ids_18_def ts_primary_state_ids_19_def
  ts_primary_state_ids_20_def ts_primary_state_ids_21_def ts_primary_state_ids_22_def ts_primary_state_ids_23_def ts_primary_state_ids_24_def
  ts_primary_state_ids_25_def ts_primary_state_ids_26_def ts_primary_state_ids_27_def ts_primary_state_ids_28_def ts_primary_state_ids_29_def
  ts_primary_state_ids_30_def ts_primary_state_ids_31_def ts_primary_state_ids_32_def ts_primary_state_ids_33_def ts_primary_state_ids_34_def
  ts_primary_state_ids_35_def ts_primary_state_ids_36_def ts_primary_state_ids_37_def ts_primary_state_ids_38_def ts_primary_state_ids_39_def
  ts_primary_state_ids_40_def ts_primary_state_ids_41_def ts_primary_state_ids_42_def ts_primary_state_ids_43_def ts_primary_state_ids_44_def
  ts_primary_state_ids_45_def ts_primary_state_ids_46_def ts_primary_state_ids_47_def ts_primary_state_ids_48_def ts_primary_state_ids_49_def
  ts_primary_state_ids_50_def ts_primary_state_ids_51_def ts_primary_state_ids_52_def ts_primary_state_ids_53_def ts_primary_state_ids_54_def
  ts_primary_state_ids_55_def ts_primary_state_ids_56_def ts_primary_state_ids_57_def ts_primary_state_ids_58_def ts_primary_state_ids_59_def
  ts_primary_state_ids_60_def ts_primary_state_ids_61_def ts_primary_state_ids_62_def ts_primary_state_ids_63_def ts_primary_state_ids_64_def
  ts_primary_state_ids_65_def ts_primary_state_ids_66_def ts_primary_state_ids_67_def ts_primary_state_ids_68_def ts_primary_state_ids_69_def
  ts_primary_state_ids_70_def ts_primary_state_ids_71_def ts_primary_state_ids_72_def ts_primary_state_ids_73_def ts_primary_state_ids_74_def
  ts_primary_state_ids_75_def ts_primary_state_ids_76_def ts_primary_state_ids_77_def ts_primary_state_ids_78_def ts_primary_state_ids_79_def
  ts_primary_state_ids_80_def ts_primary_state_ids_81_def ts_primary_state_ids_82_def ts_primary_state_ids_83_def ts_primary_state_ids_84_def
  ts_primary_state_ids_85_def

end
