(* ===== verification/Mojo_Primary_Proofs.thy ===== *)
theory Mojo_Primary_Proofs
  imports Mojo_Primary_States
begin

text \<open>
  The primary state of a parse state is at most the state and its own primary state; checked block by
  block.
\<close>

section \<open>Blocks at their places\<close>

definition primary_runs :: "(nat \<times> nat list) list" where
  "primary_runs = [
    (0, ts_primary_state_ids_0), (150, ts_primary_state_ids_1), (300, ts_primary_state_ids_2),
    (450, ts_primary_state_ids_3), (600, ts_primary_state_ids_4), (750, ts_primary_state_ids_5),
    (900, ts_primary_state_ids_6), (1050, ts_primary_state_ids_7),
    (1200, ts_primary_state_ids_8), (1350, ts_primary_state_ids_9),
    (1500, ts_primary_state_ids_10), (1650, ts_primary_state_ids_11),
    (1800, ts_primary_state_ids_12), (1950, ts_primary_state_ids_13),
    (2100, ts_primary_state_ids_14), (2250, ts_primary_state_ids_15),
    (2400, ts_primary_state_ids_16), (2550, ts_primary_state_ids_17),
    (2700, ts_primary_state_ids_18), (2850, ts_primary_state_ids_19),
    (3000, ts_primary_state_ids_20), (3150, ts_primary_state_ids_21),
    (3300, ts_primary_state_ids_22), (3450, ts_primary_state_ids_23),
    (3600, ts_primary_state_ids_24), (3750, ts_primary_state_ids_25),
    (3900, ts_primary_state_ids_26), (4050, ts_primary_state_ids_27),
    (4200, ts_primary_state_ids_28), (4350, ts_primary_state_ids_29),
    (4500, ts_primary_state_ids_30), (4650, ts_primary_state_ids_31),
    (4800, ts_primary_state_ids_32), (4950, ts_primary_state_ids_33),
    (5100, ts_primary_state_ids_34), (5250, ts_primary_state_ids_35),
    (5400, ts_primary_state_ids_36), (5550, ts_primary_state_ids_37),
    (5700, ts_primary_state_ids_38), (5850, ts_primary_state_ids_39),
    (6000, ts_primary_state_ids_40), (6150, ts_primary_state_ids_41),
    (6300, ts_primary_state_ids_42), (6450, ts_primary_state_ids_43),
    (6600, ts_primary_state_ids_44), (6750, ts_primary_state_ids_45),
    (6900, ts_primary_state_ids_46), (7050, ts_primary_state_ids_47),
    (7200, ts_primary_state_ids_48), (7350, ts_primary_state_ids_49),
    (7500, ts_primary_state_ids_50), (7650, ts_primary_state_ids_51),
    (7800, ts_primary_state_ids_52), (7950, ts_primary_state_ids_53),
    (8100, ts_primary_state_ids_54), (8250, ts_primary_state_ids_55),
    (8400, ts_primary_state_ids_56), (8550, ts_primary_state_ids_57),
    (8700, ts_primary_state_ids_58), (8850, ts_primary_state_ids_59),
    (9000, ts_primary_state_ids_60), (9150, ts_primary_state_ids_61),
    (9300, ts_primary_state_ids_62), (9450, ts_primary_state_ids_63),
    (9600, ts_primary_state_ids_64), (9750, ts_primary_state_ids_65),
    (9900, ts_primary_state_ids_66), (10050, ts_primary_state_ids_67),
    (10200, ts_primary_state_ids_68), (10350, ts_primary_state_ids_69),
    (10500, ts_primary_state_ids_70), (10650, ts_primary_state_ids_71),
    (10800, ts_primary_state_ids_72), (10950, ts_primary_state_ids_73),
    (11100, ts_primary_state_ids_74), (11250, ts_primary_state_ids_75),
    (11400, ts_primary_state_ids_76), (11550, ts_primary_state_ids_77),
    (11700, ts_primary_state_ids_78), (11850, ts_primary_state_ids_79),
    (12000, ts_primary_state_ids_80), (12150, ts_primary_state_ids_81),
    (12300, ts_primary_state_ids_82), (12450, ts_primary_state_ids_83),
    (12600, ts_primary_state_ids_84), (12750, ts_primary_state_ids_85)]"

definition primary_fixed :: "nat \<Rightarrow> bool" where
  "primary_fixed s \<longleftrightarrow> s < STATE_COUNT \<and> ts_primary_state_ids ! s = s"

text \<open>The block \<open>xs\<close> starts at \<open>i\<close>; the states in \<open>fs\<close> are their own primary states.\<close>

fun fixed_in :: "nat \<Rightarrow> nat list \<Rightarrow> nat list \<Rightarrow> bool" where
  "fixed_in i xs [] \<longleftrightarrow> True"
| "fixed_in i [] (f # fs) \<longleftrightarrow> False"
| "fixed_in i (x # xs) (f # fs) \<longleftrightarrow>
     (if f = i then x = i \<and> fixed_in (i + 1) xs fs else fixed_in (i + 1) xs (f # fs))"

fun below :: "nat \<Rightarrow> nat list \<Rightarrow> bool" where
  "below i [] \<longleftrightarrow> True"
| "below i (x # xs) \<longleftrightarrow> x \<le> i \<and> below (i + 1) xs"

lemma fixed_in_nth:
  "fixed_in i xs fs \<Longrightarrow> f \<in> set fs \<Longrightarrow> i \<le> f \<and> f - i < length xs \<and> xs ! (f - i) = f"
proof (induction i xs fs rule: fixed_in.induct)
  case (3 i x xs g fs)
  show ?case
  proof (cases "f = i \<and> g = i")
    case True
    with 3(3) show ?thesis by simp
  next
    case False
    with 3 have "i + 1 \<le> f \<and> f - (i + 1) < length xs \<and> xs ! (f - (i + 1)) = f"
      by (auto split: if_splits)
    moreover from this have "i < f" by simp
    then have "f - i = Suc (f - (i + 1))" by linarith
    ultimately show ?thesis by simp
  qed
qed simp_all

lemma fixed_in_steps [simp]:
  "fixed_in i (i # xs) (i # fs) \<longleftrightarrow> fixed_in (i + 1) xs fs"
  "f \<noteq> i \<Longrightarrow> fixed_in i (x # xs) (f # fs) \<longleftrightarrow> fixed_in (i + 1) xs (f # fs)"
  by simp_all

declare fixed_in.simps(3) [simp del]

lemma below_nth: "below i xs \<Longrightarrow> k < length xs \<Longrightarrow> xs ! k \<le> i + k"
proof (induction i xs arbitrary: k rule: below.induct)
  case (2 i x xs)
  then show ?case by (cases k) fastforce+
qed simp

section \<open>The blocks\<close>

lemma ts_primary_state_ids_0_ok:
  "length ts_primary_state_ids_0 = 150" "below 0 ts_primary_state_ids_0"
  "fixed_in 0 ts_primary_state_ids_0 [
    0, 1, 2, 3, 4, 5, 6, 7, 8, 9, 10, 11, 12, 13, 14, 15, 16, 17, 18, 19, 20, 21, 22, 23, 24, 25,
    26, 27, 28, 29, 30, 31, 32, 33, 34, 35, 36, 37, 38, 39, 40, 41, 42, 43, 44, 45, 46, 47, 48,
    49, 50, 51, 52, 53, 54, 55, 56, 57, 58, 59, 60, 61, 62, 63, 64, 65, 67, 68, 69, 70, 71, 72,
    73, 74, 75, 76, 77, 78, 79, 80, 81, 82, 83, 84, 85, 86, 87, 88, 89, 90, 91, 92, 93, 94, 95,
    96, 97, 98, 99, 100, 101, 102, 103, 104, 105, 106, 107, 108, 109, 110, 111, 112, 113, 114,
    115, 116, 117, 118, 119, 120, 121, 122, 123, 124, 125, 126, 127, 128, 129, 130, 131, 132,
    133, 134, 135, 136, 137, 138, 139, 140, 141, 142, 143, 144, 145, 146, 147, 148, 149]"
  unfolding ts_primary_state_ids_0_def by (simp_all add: fixed_in.simps(3))

lemma ts_primary_state_ids_1_ok:
  "length ts_primary_state_ids_1 = 150" "below 150 ts_primary_state_ids_1"
  "fixed_in 150 ts_primary_state_ids_1 [
    150, 151, 152, 153, 154, 155, 156, 157, 158, 159, 160, 161, 162, 163, 164, 165, 166, 167,
    168, 169, 170, 171, 172, 173, 174, 175, 176, 177, 178, 179, 180, 181, 182, 183, 184, 185,
    186, 187, 188, 189, 190, 191, 192, 193, 194, 195, 196, 197, 198, 199, 200, 201, 202, 203,
    204, 205, 206, 207, 208, 209, 210, 211, 212, 213, 214, 215, 216, 217, 218, 219, 220, 221,
    222, 223, 224, 225, 226, 227, 228, 229, 230, 231, 232, 233, 234, 235, 236, 237, 238, 239,
    240, 241, 242, 243, 244, 245, 246, 247, 248, 249, 250, 251, 252, 253, 254, 255, 256, 257,
    258, 259, 260, 261, 262, 263, 264, 265, 266, 267, 268, 269, 270, 271, 272, 273, 274, 275,
    276, 277, 278, 279, 280, 281, 282, 283, 284, 285, 286, 287, 288, 289, 290, 291, 292, 293,
    294, 295, 296, 297, 298, 299]"
  unfolding ts_primary_state_ids_1_def by simp_all

lemma ts_primary_state_ids_2_ok:
  "length ts_primary_state_ids_2 = 150" "below 300 ts_primary_state_ids_2"
  "fixed_in 300 ts_primary_state_ids_2 [
    300, 301, 302, 303, 304, 305, 306, 307, 308, 309, 310, 311, 312, 313, 314, 315, 316, 317,
    318, 319, 320, 321, 322, 323, 324, 325, 326, 327, 328, 329, 330, 331, 332, 333, 334, 335,
    336, 337, 338, 339, 340, 341, 342, 343, 344, 345, 346, 347, 348, 349, 350, 351, 352, 353,
    354, 355, 356, 357, 358, 359, 360, 361, 362, 363, 364, 365, 366, 367, 368, 369, 370, 371,
    372, 373, 374, 375, 376, 377, 378, 379, 380, 381, 382, 383, 384, 385, 386, 387, 388, 389,
    390, 391, 392, 393, 394, 395, 396, 397, 398, 399, 400, 401, 402, 403, 404, 405, 406, 407,
    408, 409, 410, 411, 412, 413, 414, 415, 416, 417, 418, 419, 420, 421, 422, 423, 424, 425,
    426, 427, 428, 429, 430, 431, 432, 433, 434, 435, 436, 437, 438, 439, 440, 441, 442, 443,
    444, 445, 446, 447, 448, 449]"
  unfolding ts_primary_state_ids_2_def by simp_all

lemma ts_primary_state_ids_3_ok:
  "length ts_primary_state_ids_3 = 150" "below 450 ts_primary_state_ids_3"
  "fixed_in 450 ts_primary_state_ids_3 [
    450, 451, 452, 453, 454, 455, 456, 457, 458, 459, 460, 461, 462, 463]"
  unfolding ts_primary_state_ids_3_def by simp_all

lemma ts_primary_state_ids_4_ok:
  "length ts_primary_state_ids_4 = 150" "below 600 ts_primary_state_ids_4"
  "fixed_in 600 ts_primary_state_ids_4 []"
  unfolding ts_primary_state_ids_4_def by simp_all

lemma ts_primary_state_ids_5_ok:
  "length ts_primary_state_ids_5 = 150" "below 750 ts_primary_state_ids_5"
  "fixed_in 750 ts_primary_state_ids_5 []"
  unfolding ts_primary_state_ids_5_def by simp_all

lemma ts_primary_state_ids_6_ok:
  "length ts_primary_state_ids_6 = 150" "below 900 ts_primary_state_ids_6"
  "fixed_in 900 ts_primary_state_ids_6 [
    917, 920, 921, 923, 929, 930, 931, 932, 933, 934, 935, 936, 937, 938, 939, 940, 941, 942,
    943, 944, 945, 946, 947, 948, 949, 950, 951, 952, 953, 954, 955, 956, 957, 958, 959, 960,
    961, 962, 963, 964, 965, 966, 967, 968, 970, 971, 972, 973, 974, 975, 976, 977, 978, 979,
    980, 981, 982, 983, 984, 985, 986, 987, 988, 989, 990, 991, 992, 993, 994, 995, 997, 998,
    1000, 1001, 1003, 1004, 1005, 1006, 1007, 1008, 1009, 1010, 1011, 1012, 1015, 1016, 1017,
    1018, 1021, 1026, 1027, 1030, 1037, 1040, 1041, 1043, 1044, 1046, 1048]"
  unfolding ts_primary_state_ids_6_def by simp_all

lemma ts_primary_state_ids_7_ok:
  "length ts_primary_state_ids_7 = 150" "below 1050 ts_primary_state_ids_7"
  "fixed_in 1050 ts_primary_state_ids_7 [
    1050, 1053, 1055, 1056, 1058, 1059, 1062, 1064, 1065, 1066, 1067, 1069, 1070, 1072, 1073,
    1075, 1076, 1077, 1078, 1079, 1081, 1082, 1085, 1087, 1088, 1089, 1092, 1101, 1103, 1104,
    1110, 1116, 1117, 1118, 1119, 1121, 1133, 1138, 1142, 1148, 1154, 1157, 1158, 1160, 1161,
    1167, 1169, 1173, 1187]"
  unfolding ts_primary_state_ids_7_def by simp_all

lemma ts_primary_state_ids_8_ok:
  "length ts_primary_state_ids_8 = 150" "below 1200 ts_primary_state_ids_8"
  "fixed_in 1200 ts_primary_state_ids_8 [
    1214, 1218, 1219, 1220, 1222, 1223, 1224, 1225, 1226, 1227, 1228, 1229, 1230, 1231, 1232,
    1233, 1234, 1235, 1236, 1237, 1238, 1239, 1240, 1241, 1242, 1243, 1244, 1245, 1246, 1247,
    1248, 1249, 1250, 1251, 1253, 1254, 1255, 1256, 1257, 1258, 1259, 1260, 1261, 1262, 1263,
    1264, 1265, 1266, 1268, 1269, 1270, 1271, 1272, 1274, 1275, 1276, 1278, 1280, 1281, 1282,
    1284, 1285, 1286, 1287, 1288, 1289, 1290, 1291, 1294, 1295, 1296, 1298, 1299, 1302, 1303,
    1304, 1305, 1306, 1307, 1308, 1309, 1310, 1311, 1312, 1313, 1314, 1316, 1317, 1318, 1319,
    1320, 1321, 1322, 1324, 1325, 1326, 1327, 1328, 1329, 1330, 1331, 1334, 1335, 1339, 1340,
    1341, 1343, 1345, 1346]"
  unfolding ts_primary_state_ids_8_def by simp_all

lemma ts_primary_state_ids_9_ok:
  "length ts_primary_state_ids_9 = 150" "below 1350 ts_primary_state_ids_9"
  "fixed_in 1350 ts_primary_state_ids_9 [
    1350, 1353, 1358, 1361, 1362, 1364, 1365, 1366, 1367, 1368, 1370, 1371, 1372, 1373, 1374,
    1375, 1377, 1378, 1379, 1380, 1381, 1382, 1383, 1384, 1385, 1386, 1387, 1388, 1390, 1391,
    1392, 1394, 1395, 1397, 1398, 1399, 1400, 1402, 1404, 1405, 1406, 1407, 1408, 1409, 1410,
    1411, 1412, 1413, 1414, 1415, 1416, 1417, 1418, 1419, 1420, 1421, 1422, 1423, 1424, 1425,
    1426, 1427, 1428, 1429, 1430, 1431, 1432, 1433, 1434, 1435, 1437, 1438, 1440, 1441, 1443,
    1444, 1446, 1447, 1448, 1450, 1451, 1452, 1453, 1454, 1457, 1458, 1459, 1461, 1463, 1464,
    1465, 1466, 1468, 1470, 1471, 1472, 1473, 1474, 1476, 1477, 1478, 1480, 1481, 1483, 1485,
    1487, 1488, 1490, 1491, 1492, 1494, 1495, 1497, 1498]"
  unfolding ts_primary_state_ids_9_def by simp_all

lemma ts_primary_state_ids_10_ok:
  "length ts_primary_state_ids_10 = 150" "below 1500 ts_primary_state_ids_10"
  "fixed_in 1500 ts_primary_state_ids_10 [
    1500, 1502, 1503, 1504, 1505, 1507, 1509, 1510, 1511, 1513, 1514, 1515, 1516, 1517, 1519,
    1520, 1522, 1523, 1525, 1528, 1531, 1533, 1537, 1540, 1542, 1545, 1549, 1551, 1553, 1559,
    1566, 1574, 1575, 1580, 1583, 1586, 1589, 1595, 1600, 1605, 1606, 1608, 1611, 1613, 1616,
    1620, 1623, 1626, 1629, 1632, 1636, 1639, 1644, 1647, 1649]"
  unfolding ts_primary_state_ids_10_def by simp_all

lemma ts_primary_state_ids_11_ok:
  "length ts_primary_state_ids_11 = 150" "below 1650 ts_primary_state_ids_11"
  "fixed_in 1650 ts_primary_state_ids_11 [
    1654, 1659, 1662, 1664, 1669, 1674, 1676, 1679, 1683, 1688, 1692, 1696, 1701, 1709, 1713,
    1718, 1720, 1724, 1728, 1730, 1732, 1735, 1738, 1741, 1746, 1750, 1757, 1763, 1766, 1767,
    1770, 1773, 1779, 1787, 1792, 1796, 1798]"
  unfolding ts_primary_state_ids_11_def by simp_all

lemma ts_primary_state_ids_12_ok:
  "length ts_primary_state_ids_12 = 150" "below 1800 ts_primary_state_ids_12"
  "fixed_in 1800 ts_primary_state_ids_12 [
    1803, 1811, 1815, 1845, 1847, 1848, 1859, 1860, 1861, 1863, 1865, 1869, 1877, 1881, 1888,
    1889, 1890, 1891, 1894, 1895, 1897, 1899, 1900, 1903, 1904]"
  unfolding ts_primary_state_ids_12_def by simp_all

lemma ts_primary_state_ids_13_ok:
  "length ts_primary_state_ids_13 = 150" "below 1950 ts_primary_state_ids_13"
  "fixed_in 1950 ts_primary_state_ids_13 [
    1991, 1998, 2010, 2021, 2022, 2023, 2024, 2025, 2027, 2028, 2029, 2031, 2032, 2033, 2034,
    2036, 2037, 2040, 2049, 2050, 2055, 2059, 2064]"
  unfolding ts_primary_state_ids_13_def by simp_all

lemma ts_primary_state_ids_14_ok:
  "length ts_primary_state_ids_14 = 150" "below 2100 ts_primary_state_ids_14"
  "fixed_in 2100 ts_primary_state_ids_14 [
    2102, 2107, 2108, 2109, 2110, 2111, 2112, 2113, 2114, 2115, 2116, 2117, 2118, 2119, 2120,
    2121, 2122, 2123, 2124, 2125, 2126, 2127, 2128, 2129, 2130, 2131, 2132, 2133, 2134, 2135,
    2136, 2137, 2138, 2139, 2140, 2141, 2142, 2143, 2144, 2145, 2146, 2147, 2148, 2149, 2150,
    2151, 2152, 2153, 2154, 2155, 2156, 2157, 2158, 2159, 2160, 2161, 2162, 2163, 2164, 2165,
    2166, 2167, 2169, 2170, 2171, 2172, 2173, 2174, 2175, 2176, 2177, 2178, 2180, 2182, 2184,
    2185, 2186, 2188, 2189, 2190, 2191, 2192, 2194, 2197, 2198, 2200, 2201, 2207, 2208, 2211,
    2213, 2215, 2218, 2221, 2223, 2228, 2232, 2233, 2245, 2246, 2248, 2249]"
  unfolding ts_primary_state_ids_14_def by simp_all

lemma ts_primary_state_ids_15_ok:
  "length ts_primary_state_ids_15 = 150" "below 2250 ts_primary_state_ids_15"
  "fixed_in 2250 ts_primary_state_ids_15 [
    2284, 2294, 2310, 2314, 2329, 2333, 2337, 2339, 2340, 2342, 2343, 2346, 2347, 2350, 2354,
    2355, 2358, 2359, 2360, 2363, 2365, 2367, 2369, 2373, 2374, 2375, 2376, 2381, 2384, 2386,
    2395, 2397]"
  unfolding ts_primary_state_ids_15_def by simp_all

lemma ts_primary_state_ids_16_ok:
  "length ts_primary_state_ids_16 = 150" "below 2400 ts_primary_state_ids_16"
  "fixed_in 2400 ts_primary_state_ids_16 [
    2400, 2403, 2406, 2408, 2412, 2419, 2420, 2421, 2422]"
  unfolding ts_primary_state_ids_16_def by simp_all

lemma ts_primary_state_ids_17_ok:
  "length ts_primary_state_ids_17 = 150" "below 2550 ts_primary_state_ids_17"
  "fixed_in 2550 ts_primary_state_ids_17 []"
  unfolding ts_primary_state_ids_17_def by simp_all

lemma ts_primary_state_ids_18_ok:
  "length ts_primary_state_ids_18 = 150" "below 2700 ts_primary_state_ids_18"
  "fixed_in 2700 ts_primary_state_ids_18 [
    2701, 2705, 2709, 2710, 2712, 2716, 2726, 2740, 2752, 2753, 2754, 2770, 2771, 2772, 2773,
    2774, 2792, 2797, 2817, 2828, 2838, 2839, 2840, 2841, 2842, 2843, 2844, 2845, 2846, 2847,
    2848, 2849]"
  unfolding ts_primary_state_ids_18_def by simp_all

lemma ts_primary_state_ids_19_ok:
  "length ts_primary_state_ids_19 = 150" "below 2850 ts_primary_state_ids_19"
  "fixed_in 2850 ts_primary_state_ids_19 [
    2850, 2851, 2852, 2853, 2854, 2855, 2856, 2857, 2858, 2859, 2860, 2861, 2862, 2863, 2864,
    2865, 2866, 2867, 2868, 2869, 2870, 2871, 2872, 2873, 2874, 2875, 2876, 2877, 2878, 2879,
    2880, 2881, 2882, 2883, 2884, 2885, 2886, 2887, 2888, 2889, 2890, 2896, 2898, 2899, 2906,
    2907, 2909, 2916, 2917, 2918, 2919, 2920, 2921, 2922, 2923, 2924, 2925, 2926, 2927, 2928,
    2929, 2930, 2931, 2932, 2933, 2934, 2935, 2936, 2937, 2938, 2939, 2940, 2943, 2945, 2949,
    2950, 2952, 2968, 2973]"
  unfolding ts_primary_state_ids_19_def by simp_all

lemma ts_primary_state_ids_20_ok:
  "length ts_primary_state_ids_20 = 150" "below 3000 ts_primary_state_ids_20"
  "fixed_in 3000 ts_primary_state_ids_20 [
    3030, 3033, 3035, 3039, 3048, 3052, 3066, 3073, 3085, 3097, 3098, 3101, 3102, 3118, 3119,
    3120, 3121, 3122, 3123, 3124, 3125, 3126, 3127, 3128, 3129, 3130, 3135, 3137, 3138, 3140,
    3141, 3143, 3144, 3145, 3146, 3147, 3148, 3149]"
  unfolding ts_primary_state_ids_20_def by simp_all

lemma ts_primary_state_ids_21_ok:
  "length ts_primary_state_ids_21 = 150" "below 3150 ts_primary_state_ids_21"
  "fixed_in 3150 ts_primary_state_ids_21 [
    3150, 3157, 3158, 3159, 3160, 3161, 3162, 3163, 3164, 3165, 3166, 3167, 3168, 3169, 3170,
    3171, 3172, 3176, 3182, 3183, 3184, 3185, 3187, 3189, 3190, 3191, 3193, 3194, 3195, 3198,
    3199, 3200, 3202, 3203, 3204, 3218, 3237, 3248]"
  unfolding ts_primary_state_ids_21_def by simp_all

lemma ts_primary_state_ids_22_ok:
  "length ts_primary_state_ids_22 = 150" "below 3300 ts_primary_state_ids_22"
  "fixed_in 3300 ts_primary_state_ids_22 [
    3407]"
  unfolding ts_primary_state_ids_22_def by simp_all

lemma ts_primary_state_ids_23_ok:
  "length ts_primary_state_ids_23 = 150" "below 3450 ts_primary_state_ids_23"
  "fixed_in 3450 ts_primary_state_ids_23 [
    3461, 3472, 3497, 3527]"
  unfolding ts_primary_state_ids_23_def by simp_all

lemma ts_primary_state_ids_24_ok:
  "length ts_primary_state_ids_24 = 150" "below 3600 ts_primary_state_ids_24"
  "fixed_in 3600 ts_primary_state_ids_24 [
    3629, 3637, 3639, 3653, 3660, 3661, 3662, 3663, 3664, 3665, 3666, 3667, 3668, 3669, 3672,
    3673, 3674, 3677, 3679, 3680, 3681, 3707, 3714, 3717, 3738]"
  unfolding ts_primary_state_ids_24_def by simp_all

lemma ts_primary_state_ids_25_ok:
  "length ts_primary_state_ids_25 = 150" "below 3750 ts_primary_state_ids_25"
  "fixed_in 3750 ts_primary_state_ids_25 [
    3750, 3751, 3752, 3754, 3755, 3757, 3758, 3760, 3761, 3771, 3772, 3781, 3782, 3788, 3809,
    3823, 3824, 3827, 3829, 3831, 3832, 3834, 3835, 3841, 3845, 3846, 3849, 3852, 3854, 3855,
    3856, 3857, 3865, 3868, 3871, 3885, 3886, 3888, 3889, 3891, 3896, 3899]"
  unfolding ts_primary_state_ids_25_def by simp_all

lemma ts_primary_state_ids_26_ok:
  "length ts_primary_state_ids_26 = 150" "below 3900 ts_primary_state_ids_26"
  "fixed_in 3900 ts_primary_state_ids_26 [
    3900, 3901, 3902, 3903, 3905, 3908, 3909, 3910, 3911, 3913, 3915, 3916, 3917, 3918, 3922,
    3923, 3925, 3927, 3929, 3933, 3939, 3941, 3945, 3946, 3947, 3948, 3949, 3951, 3954, 3955,
    3956, 3960, 3961, 3962, 3965, 3967, 3969, 3971, 3982, 3997, 3998, 3999, 4001, 4004, 4005,
    4006, 4008, 4009, 4011, 4012, 4013, 4014, 4015, 4017, 4018, 4019, 4021, 4024, 4025, 4026,
    4030, 4033, 4035]"
  unfolding ts_primary_state_ids_26_def by simp_all

lemma ts_primary_state_ids_27_ok:
  "length ts_primary_state_ids_27 = 150" "below 4050 ts_primary_state_ids_27"
  "fixed_in 4050 ts_primary_state_ids_27 [
    4050, 4066, 4067, 4068, 4069, 4070, 4071, 4072, 4074, 4075, 4076, 4077, 4078, 4079, 4083,
    4085, 4086, 4088, 4089, 4092, 4094, 4096, 4097, 4099, 4100, 4106, 4108, 4113, 4114, 4118,
    4119, 4120, 4121, 4122, 4123, 4124, 4128, 4131, 4132, 4133, 4134, 4145, 4148, 4161, 4171,
    4176, 4177, 4178, 4181, 4189, 4197]"
  unfolding ts_primary_state_ids_27_def by simp_all

lemma ts_primary_state_ids_28_ok:
  "length ts_primary_state_ids_28 = 150" "below 4200 ts_primary_state_ids_28"
  "fixed_in 4200 ts_primary_state_ids_28 [
    4201, 4202, 4244, 4259, 4267, 4281, 4282, 4283, 4284, 4286, 4287, 4288, 4289, 4290, 4293,
    4295, 4299, 4302, 4307, 4308, 4311, 4312, 4313, 4314, 4315, 4316, 4317, 4318, 4319, 4320,
    4321, 4322, 4323, 4324, 4325, 4326, 4327, 4328, 4329, 4330, 4331, 4332, 4333, 4334, 4335,
    4336, 4337, 4338, 4339, 4340, 4341, 4342, 4343, 4344, 4345, 4346, 4347, 4348, 4349]"
  unfolding ts_primary_state_ids_28_def by simp_all

lemma ts_primary_state_ids_29_ok:
  "length ts_primary_state_ids_29 = 150" "below 4350 ts_primary_state_ids_29"
  "fixed_in 4350 ts_primary_state_ids_29 [
    4350, 4351, 4352, 4353, 4354, 4355, 4356, 4357, 4358, 4359, 4360, 4361, 4362, 4363, 4364,
    4365, 4366, 4367, 4368, 4369, 4370, 4371, 4372, 4373, 4374, 4375, 4376, 4377, 4378, 4379,
    4380, 4381, 4382, 4383, 4384, 4385, 4386, 4387, 4388, 4389, 4390, 4391, 4392, 4393, 4394,
    4395, 4396, 4397, 4398, 4399, 4400, 4401, 4402, 4403, 4404, 4405, 4406, 4407, 4408, 4409,
    4410, 4411, 4412, 4413, 4414, 4415, 4416, 4417, 4418, 4419, 4420, 4421, 4422, 4423, 4424,
    4425, 4426, 4427, 4428, 4429, 4430, 4431, 4432, 4433, 4434, 4435, 4436, 4437, 4438, 4439,
    4440, 4441, 4442, 4443, 4444, 4445, 4446, 4447, 4448, 4450, 4452, 4453, 4454, 4455, 4459,
    4460, 4461, 4462, 4463, 4465, 4466, 4468, 4469, 4470, 4472, 4473, 4474, 4476, 4478, 4479,
    4480, 4481, 4482, 4483, 4484, 4485, 4486, 4487, 4489, 4491, 4494, 4495, 4496, 4499]"
  unfolding ts_primary_state_ids_29_def by simp_all

lemma ts_primary_state_ids_30_ok:
  "length ts_primary_state_ids_30 = 150" "below 4500 ts_primary_state_ids_30"
  "fixed_in 4500 ts_primary_state_ids_30 [
    4500, 4502, 4503, 4504, 4505, 4506, 4507, 4508, 4509, 4510, 4511, 4512, 4513, 4514, 4515,
    4516, 4517, 4518, 4519, 4520, 4521, 4524, 4525, 4526, 4527, 4529, 4530, 4531, 4532, 4533,
    4535, 4536, 4538, 4539, 4540, 4541, 4543, 4544, 4545, 4550, 4552, 4554, 4555, 4560, 4562,
    4563, 4566, 4567, 4569, 4570, 4571, 4572, 4573, 4574, 4575, 4576, 4577, 4580, 4582, 4583,
    4584, 4585, 4586, 4587, 4588, 4589, 4590, 4591, 4592, 4593, 4594, 4595, 4596, 4597, 4598,
    4599, 4600, 4601, 4602, 4603, 4604, 4605, 4607, 4608, 4609, 4611, 4612, 4613, 4614, 4616,
    4617, 4618, 4619, 4620, 4621, 4622, 4623, 4624, 4625, 4626, 4627, 4628, 4629, 4630, 4631,
    4632, 4633, 4634, 4635, 4636, 4637, 4638, 4639, 4640, 4642, 4643, 4644, 4645, 4646, 4647,
    4648, 4649]"
  unfolding ts_primary_state_ids_30_def by simp_all

lemma ts_primary_state_ids_31_ok:
  "length ts_primary_state_ids_31 = 150" "below 4650 ts_primary_state_ids_31"
  "fixed_in 4650 ts_primary_state_ids_31 [
    4650, 4651, 4652, 4653, 4654, 4655, 4656, 4657, 4658, 4659, 4660, 4661, 4662, 4663, 4664,
    4665, 4666, 4667, 4668, 4670, 4671, 4672, 4673, 4675, 4676, 4677, 4678, 4679, 4680, 4681,
    4683, 4685, 4686, 4687, 4688, 4689, 4690, 4691, 4692, 4693, 4694, 4695, 4696, 4697, 4698,
    4699, 4700, 4701, 4702, 4703, 4704, 4705, 4706, 4707, 4708, 4709, 4710, 4711, 4712, 4713,
    4714, 4715, 4716, 4717, 4718, 4719, 4720, 4721, 4722, 4723, 4724, 4725, 4726, 4727, 4729,
    4730, 4731, 4732, 4733, 4734, 4735, 4736, 4737, 4738, 4739, 4740, 4741, 4742, 4743, 4744,
    4745, 4746, 4747, 4748, 4749, 4750, 4751, 4753, 4754, 4755, 4756, 4757, 4758, 4759, 4760,
    4761, 4762, 4763, 4764, 4765, 4766, 4767, 4768, 4769, 4770, 4771, 4772, 4773, 4774, 4775,
    4776, 4777, 4778, 4780, 4781, 4782, 4783, 4784, 4785, 4786, 4787, 4788, 4789, 4790, 4791]"
  unfolding ts_primary_state_ids_31_def by simp_all

lemma ts_primary_state_ids_32_ok:
  "length ts_primary_state_ids_32 = 150" "below 4800 ts_primary_state_ids_32"
  "fixed_in 4800 ts_primary_state_ids_32 [
    4801, 4803, 4804, 4805, 4806, 4807, 4808, 4809, 4810, 4812, 4813, 4815, 4816, 4817, 4818,
    4819, 4820, 4821, 4823, 4824, 4825, 4826, 4828, 4830, 4831, 4832, 4833, 4834, 4836, 4837,
    4838, 4839, 4841, 4842, 4845, 4846, 4847, 4848, 4849, 4850, 4851, 4852, 4854, 4856, 4857,
    4858, 4859, 4861, 4863, 4864, 4865, 4866, 4867, 4868, 4869, 4870, 4871, 4872, 4873, 4874,
    4875, 4876, 4877, 4878, 4879, 4880, 4881, 4882, 4883, 4884, 4885, 4886, 4887, 4888, 4889,
    4890, 4891, 4892, 4893, 4894, 4895, 4896, 4897, 4898, 4899, 4900, 4901, 4902, 4903, 4904,
    4905, 4906, 4907, 4908, 4909, 4910, 4911, 4912, 4913, 4914, 4915, 4916, 4917, 4918, 4919,
    4920, 4921, 4922, 4924, 4925, 4926, 4927, 4928, 4929, 4930, 4931, 4932, 4933, 4934, 4935,
    4936, 4937, 4938, 4939, 4940, 4941, 4942, 4943, 4944, 4945, 4946, 4947, 4948, 4949]"
  unfolding ts_primary_state_ids_32_def by simp_all

lemma ts_primary_state_ids_33_ok:
  "length ts_primary_state_ids_33 = 150" "below 4950 ts_primary_state_ids_33"
  "fixed_in 4950 ts_primary_state_ids_33 [
    4950, 4951, 4952, 4953, 4954, 4955, 4956, 4957, 4960, 4962, 4963, 4964, 4966, 4968, 4970,
    4973, 4975, 4978, 4980, 4982, 4984, 4986, 4987, 4989, 4991, 4998, 4999, 5000, 5001, 5002,
    5004, 5005, 5006, 5007, 5008, 5009, 5011, 5012, 5013, 5014, 5015, 5016, 5018, 5019, 5020,
    5021, 5023, 5024, 5025, 5026, 5034, 5036, 5037, 5039, 5040, 5042, 5044, 5045, 5046, 5047,
    5048, 5049, 5050, 5051, 5053, 5054, 5055, 5056, 5057, 5058, 5060, 5062, 5063, 5066, 5067,
    5069, 5071, 5072, 5074, 5075, 5077, 5078, 5080, 5081, 5083, 5087, 5089, 5091, 5092, 5098, 5099]"
  unfolding ts_primary_state_ids_33_def by simp_all

lemma ts_primary_state_ids_34_ok:
  "length ts_primary_state_ids_34 = 150" "below 5100 ts_primary_state_ids_34"
  "fixed_in 5100 ts_primary_state_ids_34 [
    5100, 5101, 5102, 5104, 5105, 5106, 5107, 5108, 5109, 5111, 5112, 5113, 5114, 5115, 5116,
    5118, 5119, 5120, 5121, 5122, 5123, 5125, 5126, 5127, 5129, 5130, 5132, 5133, 5135, 5136,
    5137, 5139, 5140, 5141, 5143, 5144, 5146, 5147, 5148, 5150, 5151, 5152, 5154, 5155, 5156,
    5157, 5159, 5160, 5161, 5163, 5164, 5165, 5166, 5167, 5168, 5169, 5170, 5171, 5172, 5173,
    5176, 5177, 5180, 5181, 5182, 5183, 5184, 5186, 5188, 5190, 5191, 5192, 5194, 5195, 5197,
    5200, 5202, 5204, 5207, 5208, 5210, 5212, 5214, 5217, 5219, 5221, 5222, 5224, 5225, 5226,
    5227, 5228, 5229, 5231, 5232, 5234, 5235, 5237, 5238, 5241, 5242, 5244, 5245, 5247, 5249]"
  unfolding ts_primary_state_ids_34_def by simp_all

lemma ts_primary_state_ids_35_ok:
  "length ts_primary_state_ids_35 = 150" "below 5250 ts_primary_state_ids_35"
  "fixed_in 5250 ts_primary_state_ids_35 [
    5251, 5252, 5254, 5256, 5257, 5259, 5261, 5263, 5264, 5265, 5267, 5268, 5270, 5272, 5274,
    5275, 5277, 5278, 5279, 5280, 5282, 5284, 5286, 5289, 5291, 5292, 5294, 5295, 5296, 5298,
    5300, 5302, 5304, 5305, 5307, 5308, 5309, 5311, 5313, 5314, 5317, 5319, 5320, 5323, 5324,
    5325, 5327, 5328, 5331, 5333, 5336, 5338, 5343, 5344, 5346, 5347, 5348, 5350, 5351, 5352,
    5353, 5354, 5356, 5357, 5358, 5359, 5360, 5362, 5364, 5365, 5367, 5368, 5370, 5372, 5374,
    5375, 5377, 5378, 5380, 5381, 5382, 5383, 5385, 5386, 5389, 5391, 5392, 5393, 5394, 5396, 5398]"
  unfolding ts_primary_state_ids_35_def by simp_all

lemma ts_primary_state_ids_36_ok:
  "length ts_primary_state_ids_36 = 150" "below 5400 ts_primary_state_ids_36"
  "fixed_in 5400 ts_primary_state_ids_36 [
    5400, 5401, 5402, 5404, 5406, 5408, 5410, 5412, 5414, 5415, 5416, 5417, 5418, 5419, 5422,
    5424, 5425, 5426, 5428, 5430, 5432, 5434, 5436, 5438, 5440, 5442, 5444, 5446, 5447, 5448,
    5450, 5451, 5454, 5456, 5457, 5459, 5461, 5463, 5464, 5465, 5466, 5468, 5470, 5473, 5475,
    5476, 5477, 5478, 5479, 5481, 5482, 5484, 5485, 5486, 5488, 5490, 5491, 5493, 5494, 5497,
    5499, 5501, 5502, 5503, 5505, 5507, 5508, 5509, 5510, 5512, 5513, 5516, 5518, 5520, 5521,
    5522, 5524, 5526, 5528, 5530, 5532, 5534, 5536, 5538, 5540, 5541, 5542, 5543, 5545, 5546, 5549]"
  unfolding ts_primary_state_ids_36_def by simp_all

lemma ts_primary_state_ids_37_ok:
  "length ts_primary_state_ids_37 = 150" "below 5550 ts_primary_state_ids_37"
  "fixed_in 5550 ts_primary_state_ids_37 [
    5551, 5553, 5554, 5556, 5558, 5560, 5562, 5564, 5565, 5567, 5569, 5571, 5575, 5582, 5602,
    5606, 5608, 5623, 5626, 5636, 5638, 5640, 5644, 5645, 5646, 5648, 5650, 5653, 5657, 5659,
    5660, 5673, 5675, 5676, 5680, 5684, 5687, 5694, 5695]"
  unfolding ts_primary_state_ids_37_def by simp_all

lemma ts_primary_state_ids_38_ok:
  "length ts_primary_state_ids_38 = 150" "below 5700 ts_primary_state_ids_38"
  "fixed_in 5700 ts_primary_state_ids_38 [
    5705, 5706, 5708, 5710, 5711, 5713, 5715, 5716, 5718, 5719, 5720, 5721, 5723, 5725, 5727,
    5728, 5738, 5744, 5746, 5749, 5764, 5765, 5768, 5769, 5777, 5778, 5780, 5790, 5799, 5801,
    5802, 5803, 5804, 5840]"
  unfolding ts_primary_state_ids_38_def by simp_all

lemma ts_primary_state_ids_39_ok:
  "length ts_primary_state_ids_39 = 150" "below 5850 ts_primary_state_ids_39"
  "fixed_in 5850 ts_primary_state_ids_39 [
    5864, 5891, 5892, 5893, 5915, 5919, 5920, 5925, 5926, 5930, 5933, 5936, 5937, 5941, 5943,
    5946, 5950, 5951, 5953, 5954, 5957, 5961, 5962, 5969, 5971, 5975, 5977, 5981, 5983, 5985,
    5992, 5995]"
  unfolding ts_primary_state_ids_39_def by simp_all

lemma ts_primary_state_ids_40_ok:
  "length ts_primary_state_ids_40 = 150" "below 6000 ts_primary_state_ids_40"
  "fixed_in 6000 ts_primary_state_ids_40 [
    6003, 6004, 6007, 6008, 6012, 6015, 6017, 6018, 6028, 6031, 6033, 6034, 6044, 6045, 6048,
    6053, 6054, 6055, 6059, 6061, 6062, 6065, 6066, 6067, 6070, 6072, 6075, 6077, 6079, 6080,
    6084, 6087, 6088, 6092, 6093, 6097, 6102, 6107, 6108, 6112, 6116, 6118, 6120, 6121, 6125,
    6128, 6131, 6136, 6140, 6141, 6143, 6145]"
  unfolding ts_primary_state_ids_40_def by simp_all

lemma ts_primary_state_ids_41_ok:
  "length ts_primary_state_ids_41 = 150" "below 6150 ts_primary_state_ids_41"
  "fixed_in 6150 ts_primary_state_ids_41 [
    6151, 6153, 6158, 6163, 6169, 6180, 6186, 6188, 6190, 6194, 6197, 6198, 6200, 6201, 6205,
    6206, 6210, 6213, 6215, 6218, 6220, 6222, 6226, 6229, 6231, 6238, 6241, 6244, 6248, 6249,
    6251, 6252, 6253, 6257, 6260, 6262, 6268, 6271, 6272, 6273, 6275, 6276, 6281, 6284, 6286,
    6287, 6297]"
  unfolding ts_primary_state_ids_41_def by simp_all

lemma ts_primary_state_ids_42_ok:
  "length ts_primary_state_ids_42 = 150" "below 6300 ts_primary_state_ids_42"
  "fixed_in 6300 ts_primary_state_ids_42 [
    6300, 6303, 6308, 6314, 6317, 6320, 6323, 6324, 6328, 6329, 6331, 6332, 6333, 6336, 6337,
    6340, 6341, 6342, 6345, 6346, 6349, 6350, 6351, 6355, 6358, 6359, 6363, 6364, 6366, 6367,
    6372, 6375, 6377, 6380, 6381, 6384, 6386, 6388, 6389, 6393, 6399, 6407, 6409, 6411, 6413,
    6419, 6422, 6431, 6434, 6436, 6437, 6442, 6448]"
  unfolding ts_primary_state_ids_42_def by simp_all

lemma ts_primary_state_ids_43_ok:
  "length ts_primary_state_ids_43 = 150" "below 6450 ts_primary_state_ids_43"
  "fixed_in 6450 ts_primary_state_ids_43 [
    6452, 6453, 6454, 6455, 6456, 6457, 6458, 6459, 6460]"
  unfolding ts_primary_state_ids_43_def by simp_all

lemma ts_primary_state_ids_44_ok:
  "length ts_primary_state_ids_44 = 150" "below 6600 ts_primary_state_ids_44"
  "fixed_in 6600 ts_primary_state_ids_44 [
    6723, 6724, 6725, 6726, 6729, 6730, 6731, 6732, 6734, 6735, 6738, 6739, 6742, 6744, 6748, 6749]"
  unfolding ts_primary_state_ids_44_def by simp_all

lemma ts_primary_state_ids_45_ok:
  "length ts_primary_state_ids_45 = 150" "below 6750 ts_primary_state_ids_45"
  "fixed_in 6750 ts_primary_state_ids_45 [
    6750, 6753, 6758, 6759, 6760, 6762, 6763, 6764, 6765, 6766, 6767, 6768, 6769, 6771, 6773,
    6774, 6775, 6776, 6777, 6778, 6780, 6781, 6782, 6783, 6787, 6788, 6789, 6790, 6791, 6793,
    6794, 6795, 6796, 6797, 6798, 6799, 6800, 6803, 6808, 6809, 6810, 6811, 6812, 6813, 6814,
    6815, 6817, 6818, 6820, 6827, 6865, 6866, 6870, 6888]"
  unfolding ts_primary_state_ids_45_def by simp_all

lemma ts_primary_state_ids_46_ok:
  "length ts_primary_state_ids_46 = 150" "below 6900 ts_primary_state_ids_46"
  "fixed_in 6900 ts_primary_state_ids_46 [
    6913, 6935, 6936, 6937, 6940, 6945, 6946, 6947, 6948, 6949, 6950, 6951, 6952, 6953, 6957,
    6960, 6962, 6964, 6965, 6966, 6967, 6973, 6975, 6992, 6995, 6996, 6997, 6998, 6999, 7002,
    7005, 7006, 7007, 7009, 7010, 7011, 7012, 7013, 7015, 7017, 7027, 7044]"
  unfolding ts_primary_state_ids_46_def by simp_all

lemma ts_primary_state_ids_47_ok:
  "length ts_primary_state_ids_47 = 150" "below 7050 ts_primary_state_ids_47"
  "fixed_in 7050 ts_primary_state_ids_47 [
    7061, 7062, 7063, 7064, 7065, 7066, 7156]"
  unfolding ts_primary_state_ids_47_def by simp_all

lemma ts_primary_state_ids_48_ok:
  "length ts_primary_state_ids_48 = 150" "below 7200 ts_primary_state_ids_48"
  "fixed_in 7200 ts_primary_state_ids_48 [
    7282]"
  unfolding ts_primary_state_ids_48_def by simp_all

lemma ts_primary_state_ids_49_ok:
  "length ts_primary_state_ids_49 = 150" "below 7350 ts_primary_state_ids_49"
  "fixed_in 7350 ts_primary_state_ids_49 [
    7353, 7383, 7482]"
  unfolding ts_primary_state_ids_49_def by simp_all

lemma ts_primary_state_ids_50_ok:
  "length ts_primary_state_ids_50 = 150" "below 7500 ts_primary_state_ids_50"
  "fixed_in 7500 ts_primary_state_ids_50 [
    7515, 7517, 7523, 7526, 7533, 7534, 7536, 7539, 7549, 7563, 7582, 7586, 7587, 7596, 7646]"
  unfolding ts_primary_state_ids_50_def by simp_all

lemma ts_primary_state_ids_51_ok:
  "length ts_primary_state_ids_51 = 150" "below 7650 ts_primary_state_ids_51"
  "fixed_in 7650 ts_primary_state_ids_51 [
    7721, 7722, 7742, 7751, 7752, 7781, 7784]"
  unfolding ts_primary_state_ids_51_def by simp_all

lemma ts_primary_state_ids_52_ok:
  "length ts_primary_state_ids_52 = 150" "below 7800 ts_primary_state_ids_52"
  "fixed_in 7800 ts_primary_state_ids_52 [
    7822, 7823, 7824, 7825, 7827, 7829, 7847, 7848, 7849, 7851, 7852, 7853, 7855, 7857, 7861,
    7865, 7878, 7881, 7882, 7884, 7886, 7890, 7891, 7892, 7895, 7897, 7899, 7900, 7902, 7904,
    7909, 7910, 7922, 7926, 7929, 7931, 7933]"
  unfolding ts_primary_state_ids_52_def by simp_all

lemma ts_primary_state_ids_53_ok:
  "length ts_primary_state_ids_53 = 150" "below 7950 ts_primary_state_ids_53"
  "fixed_in 7950 ts_primary_state_ids_53 [
    7953, 7956, 7959, 7964, 7966, 7967, 7968, 7969, 7970, 7975, 7976, 7977, 7979, 7983, 7996,
    7997, 7999, 8000, 8002, 8010, 8011, 8012, 8013, 8014, 8015, 8016, 8017, 8019, 8030, 8031,
    8032, 8033, 8034, 8035, 8044, 8045, 8046, 8048, 8055, 8061, 8062, 8063, 8064, 8065, 8079,
    8080, 8086, 8093, 8097, 8098]"
  unfolding ts_primary_state_ids_53_def by simp_all

lemma ts_primary_state_ids_54_ok:
  "length ts_primary_state_ids_54 = 150" "below 8100 ts_primary_state_ids_54"
  "fixed_in 8100 ts_primary_state_ids_54 [
    8105, 8107, 8108, 8111, 8112, 8113, 8114, 8123, 8124, 8125, 8126, 8127, 8128, 8129, 8130,
    8131, 8132, 8133, 8134, 8135, 8136, 8137, 8138, 8139, 8140, 8141, 8142, 8143, 8144, 8145,
    8155, 8170, 8173, 8175, 8180, 8188, 8197, 8198, 8199, 8200, 8202, 8206, 8207, 8208, 8211,
    8217, 8233, 8234, 8240, 8242, 8243, 8244, 8245, 8246, 8247]"
  unfolding ts_primary_state_ids_54_def by simp_all

lemma ts_primary_state_ids_55_ok:
  "length ts_primary_state_ids_55 = 150" "below 8250 ts_primary_state_ids_55"
  "fixed_in 8250 ts_primary_state_ids_55 [
    8252, 8253, 8265, 8266, 8271, 8299, 8303, 8305, 8307, 8309, 8316, 8329, 8330, 8331, 8332,
    8333, 8334, 8335, 8336, 8338, 8339, 8341, 8342, 8343, 8344, 8351]"
  unfolding ts_primary_state_ids_55_def by simp_all

lemma ts_primary_state_ids_56_ok:
  "length ts_primary_state_ids_56 = 150" "below 8400 ts_primary_state_ids_56"
  "fixed_in 8400 ts_primary_state_ids_56 [
    8481, 8482, 8483, 8484, 8485, 8486, 8489, 8548]"
  unfolding ts_primary_state_ids_56_def by simp_all

lemma ts_primary_state_ids_57_ok:
  "length ts_primary_state_ids_57 = 150" "below 8550 ts_primary_state_ids_57"
  "fixed_in 8550 ts_primary_state_ids_57 [
    8568, 8569, 8578, 8588, 8589, 8617, 8618, 8619, 8620, 8621, 8622, 8624, 8625, 8626, 8633,
    8634, 8635, 8636, 8637, 8639, 8640, 8642, 8643, 8644, 8645, 8646, 8647, 8649, 8650, 8651,
    8653, 8658, 8659, 8660, 8665, 8667, 8668, 8669, 8670, 8671, 8672, 8673, 8674, 8675, 8677,
    8679, 8680, 8681, 8682, 8683, 8686, 8687, 8688, 8690, 8697, 8698, 8699]"
  unfolding ts_primary_state_ids_57_def by simp_all

lemma ts_primary_state_ids_58_ok:
  "length ts_primary_state_ids_58 = 150" "below 8700 ts_primary_state_ids_58"
  "fixed_in 8700 ts_primary_state_ids_58 [
    8700, 8701, 8702, 8703, 8704, 8705, 8706, 8707, 8708, 8709, 8710, 8711, 8712, 8713, 8714,
    8715, 8716, 8717, 8718, 8719, 8720, 8721, 8722, 8723, 8724, 8725, 8726, 8727, 8728, 8729,
    8730, 8731, 8732, 8733, 8734, 8735, 8736, 8737, 8738, 8739, 8740, 8741, 8742, 8743, 8744,
    8745, 8746, 8747, 8748, 8749, 8750, 8751, 8752, 8753, 8754, 8755, 8756, 8757, 8758, 8759,
    8760, 8761, 8762, 8763, 8764, 8766, 8767, 8768, 8769, 8770, 8771, 8772, 8773, 8774, 8775,
    8776, 8777, 8778, 8779, 8780, 8781, 8782, 8783, 8784, 8785, 8786, 8787, 8788, 8789, 8790,
    8791, 8792, 8793, 8794, 8795, 8796, 8797, 8798, 8799, 8800, 8801, 8802, 8803, 8804, 8805,
    8806, 8807, 8808, 8809, 8810, 8811, 8812, 8813, 8814, 8815, 8816, 8817, 8818, 8819, 8820,
    8821, 8822, 8823, 8824, 8825, 8844, 8846, 8847, 8849]"
  unfolding ts_primary_state_ids_58_def by simp_all

lemma ts_primary_state_ids_59_ok:
  "length ts_primary_state_ids_59 = 150" "below 8850 ts_primary_state_ids_59"
  "fixed_in 8850 ts_primary_state_ids_59 [
    8850, 8851, 8852, 8853, 8854, 8855, 8856, 8857, 8858, 8859, 8860, 8861, 8862, 8863, 8864,
    8865, 8866, 8867, 8868, 8869, 8870, 8871, 8872, 8873, 8874, 8875, 8876, 8877, 8878, 8879,
    8880, 8881, 8882, 8883, 8884, 8885]"
  unfolding ts_primary_state_ids_59_def by simp_all

lemma ts_primary_state_ids_60_ok:
  "length ts_primary_state_ids_60 = 150" "below 9000 ts_primary_state_ids_60"
  "fixed_in 9000 ts_primary_state_ids_60 [
    9060]"
  unfolding ts_primary_state_ids_60_def by simp_all

lemma ts_primary_state_ids_61_ok:
  "length ts_primary_state_ids_61 = 150" "below 9150 ts_primary_state_ids_61"
  "fixed_in 9150 ts_primary_state_ids_61 []"
  unfolding ts_primary_state_ids_61_def by simp_all

lemma ts_primary_state_ids_62_ok:
  "length ts_primary_state_ids_62 = 150" "below 9300 ts_primary_state_ids_62"
  "fixed_in 9300 ts_primary_state_ids_62 []"
  unfolding ts_primary_state_ids_62_def by simp_all

lemma ts_primary_state_ids_63_ok:
  "length ts_primary_state_ids_63 = 150" "below 9450 ts_primary_state_ids_63"
  "fixed_in 9450 ts_primary_state_ids_63 [
    9455, 9464, 9466, 9480, 9484, 9494, 9550, 9551, 9552, 9555, 9556, 9558, 9563, 9565, 9586]"
  unfolding ts_primary_state_ids_63_def by simp_all

lemma ts_primary_state_ids_64_ok:
  "length ts_primary_state_ids_64 = 150" "below 9600 ts_primary_state_ids_64"
  "fixed_in 9600 ts_primary_state_ids_64 [
    9605, 9615, 9623, 9629, 9632, 9634, 9636, 9640, 9641, 9642, 9648, 9649, 9652, 9653, 9654,
    9655, 9656, 9658, 9659, 9660, 9662, 9664, 9669, 9670, 9672, 9677, 9681, 9685, 9691, 9696,
    9698, 9700, 9704, 9707, 9712, 9726, 9727, 9728, 9731, 9733, 9737, 9740, 9745, 9746, 9747]"
  unfolding ts_primary_state_ids_64_def by simp_all

lemma ts_primary_state_ids_65_ok:
  "length ts_primary_state_ids_65 = 150" "below 9750 ts_primary_state_ids_65"
  "fixed_in 9750 ts_primary_state_ids_65 [
    9753, 9766, 9767, 9769, 9773, 9790, 9792, 9798, 9809, 9812, 9815, 9834, 9835, 9859, 9861,
    9864, 9866, 9872, 9875, 9878, 9880, 9883]"
  unfolding ts_primary_state_ids_65_def by simp_all

lemma ts_primary_state_ids_66_ok:
  "length ts_primary_state_ids_66 = 150" "below 9900 ts_primary_state_ids_66"
  "fixed_in 9900 ts_primary_state_ids_66 [
    9904, 9908, 9918, 9948, 9964, 9968, 9978, 9981, 9984, 9992, 10013, 10018, 10036, 10039, 10042]"
  unfolding ts_primary_state_ids_66_def by simp_all

lemma ts_primary_state_ids_67_ok:
  "length ts_primary_state_ids_67 = 150" "below 10050 ts_primary_state_ids_67"
  "fixed_in 10050 ts_primary_state_ids_67 [
    10059, 10096, 10097, 10101, 10103, 10105, 10107, 10109, 10110, 10112, 10113, 10114, 10116,
    10117, 10118, 10119, 10120, 10121, 10122, 10124, 10131, 10132, 10134, 10135, 10140, 10141,
    10143, 10146, 10152, 10160, 10161, 10165, 10167, 10174, 10175, 10176, 10180, 10182, 10184,
    10185, 10186, 10188, 10190, 10191, 10192, 10193, 10194, 10195, 10196, 10199]"
  unfolding ts_primary_state_ids_67_def by simp_all

lemma ts_primary_state_ids_68_ok:
  "length ts_primary_state_ids_68 = 150" "below 10200 ts_primary_state_ids_68"
  "fixed_in 10200 ts_primary_state_ids_68 [
    10200, 10203, 10204, 10205, 10206, 10207, 10208, 10209, 10210, 10211, 10212, 10213, 10214,
    10215, 10216, 10217, 10218, 10220, 10222, 10223, 10224, 10227, 10228, 10231, 10233, 10242,
    10243, 10244, 10245, 10246, 10247, 10248, 10249, 10250, 10251, 10255, 10257, 10259, 10260,
    10261, 10263, 10267, 10269, 10270, 10271, 10272, 10273, 10274, 10275, 10276, 10277, 10279,
    10280, 10281, 10282, 10285, 10286, 10289, 10290, 10291, 10293, 10296, 10297, 10298, 10305,
    10306, 10307, 10308, 10310, 10320, 10322, 10323, 10324, 10325, 10326, 10327, 10328, 10329,
    10330, 10331, 10332, 10333, 10334, 10335, 10336, 10337, 10338, 10339, 10348]"
  unfolding ts_primary_state_ids_68_def by simp_all

lemma ts_primary_state_ids_69_ok:
  "length ts_primary_state_ids_69 = 150" "below 10350 ts_primary_state_ids_69"
  "fixed_in 10350 ts_primary_state_ids_69 [
    10351, 10368, 10369, 10370, 10371, 10372, 10381, 10384, 10385, 10386, 10387, 10388, 10389,
    10390, 10391, 10392, 10393, 10394, 10395, 10396, 10397, 10398, 10399, 10400, 10401, 10402,
    10403, 10405, 10406, 10407, 10408, 10409, 10411, 10412, 10415, 10428, 10432, 10435, 10453,
    10454, 10469, 10473, 10474, 10478, 10495]"
  unfolding ts_primary_state_ids_69_def by simp_all

lemma ts_primary_state_ids_70_ok:
  "length ts_primary_state_ids_70 = 150" "below 10500 ts_primary_state_ids_70"
  "fixed_in 10500 ts_primary_state_ids_70 [
    10521, 10531, 10534, 10536, 10544, 10552, 10590]"
  unfolding ts_primary_state_ids_70_def by simp_all

lemma ts_primary_state_ids_71_ok:
  "length ts_primary_state_ids_71 = 150" "below 10650 ts_primary_state_ids_71"
  "fixed_in 10650 ts_primary_state_ids_71 [
    10666, 10669, 10673, 10696, 10718, 10719, 10726, 10736, 10752, 10762, 10766, 10767, 10783,
    10796, 10797]"
  unfolding ts_primary_state_ids_71_def by simp_all

lemma ts_primary_state_ids_72_ok:
  "length ts_primary_state_ids_72 = 150" "below 10800 ts_primary_state_ids_72"
  "fixed_in 10800 ts_primary_state_ids_72 [
    10801, 10835, 10836, 10837, 10849, 10860, 10939, 10940, 10941, 10942, 10943, 10944, 10946,
    10947, 10948, 10949]"
  unfolding ts_primary_state_ids_72_def by simp_all

lemma ts_primary_state_ids_73_ok:
  "length ts_primary_state_ids_73 = 150" "below 10950 ts_primary_state_ids_73"
  "fixed_in 10950 ts_primary_state_ids_73 [
    10950, 10951, 10954, 10955, 10956, 10960, 10961, 10962, 10965, 10966, 10967, 10968, 10969,
    10970, 10971, 10973, 10976, 10977, 10978, 10979, 10983, 10984, 10987, 10990, 10993, 10995,
    10996, 10997, 10998, 10999, 11001, 11003, 11004, 11006, 11008, 11009, 11010, 11011, 11012,
    11013, 11014, 11017, 11018, 11023, 11027, 11028, 11029, 11030, 11031, 11032, 11033, 11034,
    11035, 11036, 11037, 11038, 11041, 11042, 11043, 11044, 11045, 11046, 11049, 11054, 11055,
    11056, 11061, 11062, 11065, 11067, 11069, 11071, 11072, 11074, 11075, 11081, 11082, 11083,
    11086, 11088, 11096, 11098, 11099]"
  unfolding ts_primary_state_ids_73_def by simp_all

lemma ts_primary_state_ids_74_ok:
  "length ts_primary_state_ids_74 = 150" "below 11100 ts_primary_state_ids_74"
  "fixed_in 11100 ts_primary_state_ids_74 [
    11100, 11103, 11108, 11109, 11110, 11112, 11113, 11115, 11116, 11117, 11128, 11139, 11143,
    11145, 11146, 11150, 11156, 11161, 11178, 11181, 11188, 11189, 11190, 11191, 11192, 11193,
    11198, 11199, 11200, 11201, 11202, 11203, 11204, 11206, 11207, 11208, 11209, 11212, 11214,
    11216, 11218, 11219, 11221, 11222, 11223, 11224, 11225, 11226, 11227, 11228, 11230, 11231,
    11237, 11239, 11240, 11241, 11242, 11243, 11244, 11245, 11246, 11247, 11248, 11249]"
  unfolding ts_primary_state_ids_74_def by simp_all

lemma ts_primary_state_ids_75_ok:
  "length ts_primary_state_ids_75 = 150" "below 11250 ts_primary_state_ids_75"
  "fixed_in 11250 ts_primary_state_ids_75 [
    11250, 11251, 11252, 11253, 11254, 11255, 11256, 11258, 11259, 11260, 11261, 11262, 11263,
    11264, 11265, 11266, 11267, 11268, 11269, 11270, 11272, 11273, 11274, 11275, 11278, 11279,
    11280, 11281, 11282, 11284, 11285, 11286, 11287, 11289, 11291, 11292, 11293, 11294, 11295,
    11296, 11297, 11298, 11299, 11301, 11302, 11304, 11307, 11308, 11309, 11310, 11312, 11314,
    11315, 11316, 11317, 11318, 11319, 11320, 11321, 11322, 11324, 11326, 11327, 11328, 11331,
    11332, 11335, 11336, 11337, 11338, 11339, 11340, 11341, 11342, 11343, 11349, 11350, 11351,
    11352, 11353, 11354, 11355, 11356, 11359, 11360, 11361, 11362, 11363, 11364, 11365, 11366,
    11367, 11368, 11369, 11370, 11371, 11372, 11373, 11374, 11378, 11379, 11381, 11383, 11384,
    11386, 11393, 11394, 11396, 11398]"
  unfolding ts_primary_state_ids_75_def by simp_all

lemma ts_primary_state_ids_76_ok:
  "length ts_primary_state_ids_76 = 150" "below 11400 ts_primary_state_ids_76"
  "fixed_in 11400 ts_primary_state_ids_76 [
    11400, 11406, 11407, 11408, 11411, 11412, 11413, 11414, 11416, 11417, 11420, 11424, 11425,
    11426, 11427, 11429, 11430, 11431, 11434, 11439, 11440, 11441, 11442, 11443, 11444, 11445,
    11446, 11450, 11451, 11453, 11455, 11456, 11459, 11462, 11463, 11465, 11468, 11471, 11474,
    11475, 11479, 11480, 11483, 11485, 11486, 11488, 11490, 11491, 11492, 11493, 11494, 11495,
    11499, 11501, 11503, 11507, 11515, 11517, 11519, 11520, 11522, 11531, 11532, 11535, 11538,
    11540, 11543, 11548]"
  unfolding ts_primary_state_ids_76_def by simp_all

lemma ts_primary_state_ids_77_ok:
  "length ts_primary_state_ids_77 = 150" "below 11550 ts_primary_state_ids_77"
  "fixed_in 11550 ts_primary_state_ids_77 [
    11550, 11551, 11552, 11554, 11556, 11559, 11560, 11561, 11563, 11565, 11566, 11568, 11569,
    11572, 11573, 11587, 11591, 11592, 11598, 11602, 11609, 11637, 11639, 11640, 11643, 11650,
    11653, 11655, 11657, 11659, 11660, 11667, 11672, 11681, 11688, 11694, 11697]"
  unfolding ts_primary_state_ids_77_def by simp_all

lemma ts_primary_state_ids_78_ok:
  "length ts_primary_state_ids_78 = 150" "below 11700 ts_primary_state_ids_78"
  "fixed_in 11700 ts_primary_state_ids_78 [
    11706, 11707, 11709, 11712, 11718, 11719, 11724, 11739, 11748, 11749, 11750, 11757, 11771,
    11775, 11785, 11793, 11806, 11807, 11808, 11809, 11810, 11811, 11812, 11813, 11814, 11815,
    11816, 11817, 11819, 11821, 11823, 11824, 11825, 11826, 11827, 11829, 11831, 11832, 11833,
    11834, 11837, 11838, 11839, 11840, 11841, 11842, 11843, 11846, 11848]"
  unfolding ts_primary_state_ids_78_def by simp_all

lemma ts_primary_state_ids_79_ok:
  "length ts_primary_state_ids_79 = 150" "below 11850 ts_primary_state_ids_79"
  "fixed_in 11850 ts_primary_state_ids_79 [
    11850, 11852, 11853, 11854, 11856, 11857, 11858, 11862, 11863, 11865, 11866, 11867, 11868,
    11870, 11871, 11874, 11875, 11877, 11879, 11881, 11882, 11883, 11885, 11886, 11888, 11890,
    11892, 11899, 11900, 11901, 11903, 11904, 11906, 11909, 11912, 11914, 11915, 11916, 11917,
    11921, 11925, 11926, 11928, 11931, 11933, 11936, 11937, 11939, 11941, 11942, 11943, 11946,
    11955, 11957, 11961, 11965, 11971, 11972, 11974, 11978, 11993, 11997]"
  unfolding ts_primary_state_ids_79_def by simp_all

lemma ts_primary_state_ids_80_ok:
  "length ts_primary_state_ids_80 = 150" "below 12000 ts_primary_state_ids_80"
  "fixed_in 12000 ts_primary_state_ids_80 [
    12004, 12007, 12016, 12018, 12024, 12046, 12049, 12052, 12066, 12084, 12088, 12097, 12102,
    12103, 12106, 12110, 12113, 12122, 12131]"
  unfolding ts_primary_state_ids_80_def by simp_all

lemma ts_primary_state_ids_81_ok:
  "length ts_primary_state_ids_81 = 150" "below 12150 ts_primary_state_ids_81"
  "fixed_in 12150 ts_primary_state_ids_81 [
    12156, 12157, 12164, 12166, 12184, 12186, 12192, 12193, 12214, 12224, 12233, 12277, 12279,
    12285, 12286, 12287, 12288, 12290, 12291, 12292, 12293, 12294, 12295, 12298, 12299]"
  unfolding ts_primary_state_ids_81_def by simp_all

lemma ts_primary_state_ids_82_ok:
  "length ts_primary_state_ids_82 = 150" "below 12300 ts_primary_state_ids_82"
  "fixed_in 12300 ts_primary_state_ids_82 [
    12301, 12302, 12303, 12304, 12306, 12308, 12309, 12311, 12313, 12314, 12315, 12316, 12317,
    12318, 12319, 12323, 12324, 12325, 12326, 12329, 12332, 12336, 12337, 12338, 12340, 12342,
    12345, 12347, 12352, 12356, 12360, 12362, 12363, 12364, 12368, 12371, 12374, 12377, 12378,
    12382, 12383, 12385, 12386, 12390, 12393, 12397, 12400, 12401, 12402, 12403, 12406, 12407,
    12409, 12410, 12411, 12414, 12415, 12417, 12418, 12419, 12421, 12422, 12424, 12425, 12426,
    12430, 12431, 12432, 12439, 12442, 12443, 12446, 12448]"
  unfolding ts_primary_state_ids_82_def by simp_all

lemma ts_primary_state_ids_83_ok:
  "length ts_primary_state_ids_83 = 150" "below 12450 ts_primary_state_ids_83"
  "fixed_in 12450 ts_primary_state_ids_83 [
    12456, 12458, 12462, 12463, 12464, 12465, 12466, 12467, 12468, 12469, 12470, 12471, 12472,
    12473, 12474, 12475, 12476, 12477, 12478, 12480, 12481, 12482, 12483, 12484, 12485, 12487,
    12489, 12491, 12492, 12493, 12494, 12495, 12496, 12497, 12499, 12500, 12504, 12506, 12507,
    12511, 12512, 12513, 12515, 12518, 12524, 12525, 12526, 12527, 12528, 12531, 12540, 12545,
    12548, 12549, 12553, 12554, 12555, 12556, 12558, 12561, 12563, 12565, 12566, 12567, 12569,
    12570, 12575, 12576, 12577, 12581, 12582, 12583, 12584, 12593, 12596, 12597, 12598]"
  unfolding ts_primary_state_ids_83_def by simp_all

lemma ts_primary_state_ids_84_ok:
  "length ts_primary_state_ids_84 = 150" "below 12600 ts_primary_state_ids_84"
  "fixed_in 12600 ts_primary_state_ids_84 [
    12601, 12604, 12605, 12608, 12609, 12612, 12613, 12614, 12615, 12624, 12627, 12628, 12630,
    12635, 12639, 12645, 12649, 12650, 12659, 12662, 12665, 12673, 12675, 12685, 12687, 12688,
    12692, 12705, 12717, 12722, 12727, 12730, 12731, 12741]"
  unfolding ts_primary_state_ids_84_def by simp_all

lemma ts_primary_state_ids_85_ok:
  "length ts_primary_state_ids_85 = 8" "below 12750 ts_primary_state_ids_85"
  "fixed_in 12750 ts_primary_state_ids_85 [
    12750]"
  unfolding ts_primary_state_ids_85_def by simp_all

lemmas primary_lengths =
  ts_primary_state_ids_0_ok(1) ts_primary_state_ids_1_ok(1) ts_primary_state_ids_2_ok(1)
  ts_primary_state_ids_3_ok(1) ts_primary_state_ids_4_ok(1) ts_primary_state_ids_5_ok(1)
  ts_primary_state_ids_6_ok(1) ts_primary_state_ids_7_ok(1) ts_primary_state_ids_8_ok(1)
  ts_primary_state_ids_9_ok(1) ts_primary_state_ids_10_ok(1) ts_primary_state_ids_11_ok(1)
  ts_primary_state_ids_12_ok(1) ts_primary_state_ids_13_ok(1) ts_primary_state_ids_14_ok(1)
  ts_primary_state_ids_15_ok(1) ts_primary_state_ids_16_ok(1) ts_primary_state_ids_17_ok(1)
  ts_primary_state_ids_18_ok(1) ts_primary_state_ids_19_ok(1) ts_primary_state_ids_20_ok(1)
  ts_primary_state_ids_21_ok(1) ts_primary_state_ids_22_ok(1) ts_primary_state_ids_23_ok(1)
  ts_primary_state_ids_24_ok(1) ts_primary_state_ids_25_ok(1) ts_primary_state_ids_26_ok(1)
  ts_primary_state_ids_27_ok(1) ts_primary_state_ids_28_ok(1) ts_primary_state_ids_29_ok(1)
  ts_primary_state_ids_30_ok(1) ts_primary_state_ids_31_ok(1) ts_primary_state_ids_32_ok(1)
  ts_primary_state_ids_33_ok(1) ts_primary_state_ids_34_ok(1) ts_primary_state_ids_35_ok(1)
  ts_primary_state_ids_36_ok(1) ts_primary_state_ids_37_ok(1) ts_primary_state_ids_38_ok(1)
  ts_primary_state_ids_39_ok(1) ts_primary_state_ids_40_ok(1) ts_primary_state_ids_41_ok(1)
  ts_primary_state_ids_42_ok(1) ts_primary_state_ids_43_ok(1) ts_primary_state_ids_44_ok(1)
  ts_primary_state_ids_45_ok(1) ts_primary_state_ids_46_ok(1) ts_primary_state_ids_47_ok(1)
  ts_primary_state_ids_48_ok(1) ts_primary_state_ids_49_ok(1) ts_primary_state_ids_50_ok(1)
  ts_primary_state_ids_51_ok(1) ts_primary_state_ids_52_ok(1) ts_primary_state_ids_53_ok(1)
  ts_primary_state_ids_54_ok(1) ts_primary_state_ids_55_ok(1) ts_primary_state_ids_56_ok(1)
  ts_primary_state_ids_57_ok(1) ts_primary_state_ids_58_ok(1) ts_primary_state_ids_59_ok(1)
  ts_primary_state_ids_60_ok(1) ts_primary_state_ids_61_ok(1) ts_primary_state_ids_62_ok(1)
  ts_primary_state_ids_63_ok(1) ts_primary_state_ids_64_ok(1) ts_primary_state_ids_65_ok(1)
  ts_primary_state_ids_66_ok(1) ts_primary_state_ids_67_ok(1) ts_primary_state_ids_68_ok(1)
  ts_primary_state_ids_69_ok(1) ts_primary_state_ids_70_ok(1) ts_primary_state_ids_71_ok(1)
  ts_primary_state_ids_72_ok(1) ts_primary_state_ids_73_ok(1) ts_primary_state_ids_74_ok(1)
  ts_primary_state_ids_75_ok(1) ts_primary_state_ids_76_ok(1) ts_primary_state_ids_77_ok(1)
  ts_primary_state_ids_78_ok(1) ts_primary_state_ids_79_ok(1) ts_primary_state_ids_80_ok(1)
  ts_primary_state_ids_81_ok(1) ts_primary_state_ids_82_ok(1) ts_primary_state_ids_83_ok(1)
  ts_primary_state_ids_84_ok(1) ts_primary_state_ids_85_ok(1)

lemmas primary_below =
  ts_primary_state_ids_0_ok(2) ts_primary_state_ids_1_ok(2) ts_primary_state_ids_2_ok(2)
  ts_primary_state_ids_3_ok(2) ts_primary_state_ids_4_ok(2) ts_primary_state_ids_5_ok(2)
  ts_primary_state_ids_6_ok(2) ts_primary_state_ids_7_ok(2) ts_primary_state_ids_8_ok(2)
  ts_primary_state_ids_9_ok(2) ts_primary_state_ids_10_ok(2) ts_primary_state_ids_11_ok(2)
  ts_primary_state_ids_12_ok(2) ts_primary_state_ids_13_ok(2) ts_primary_state_ids_14_ok(2)
  ts_primary_state_ids_15_ok(2) ts_primary_state_ids_16_ok(2) ts_primary_state_ids_17_ok(2)
  ts_primary_state_ids_18_ok(2) ts_primary_state_ids_19_ok(2) ts_primary_state_ids_20_ok(2)
  ts_primary_state_ids_21_ok(2) ts_primary_state_ids_22_ok(2) ts_primary_state_ids_23_ok(2)
  ts_primary_state_ids_24_ok(2) ts_primary_state_ids_25_ok(2) ts_primary_state_ids_26_ok(2)
  ts_primary_state_ids_27_ok(2) ts_primary_state_ids_28_ok(2) ts_primary_state_ids_29_ok(2)
  ts_primary_state_ids_30_ok(2) ts_primary_state_ids_31_ok(2) ts_primary_state_ids_32_ok(2)
  ts_primary_state_ids_33_ok(2) ts_primary_state_ids_34_ok(2) ts_primary_state_ids_35_ok(2)
  ts_primary_state_ids_36_ok(2) ts_primary_state_ids_37_ok(2) ts_primary_state_ids_38_ok(2)
  ts_primary_state_ids_39_ok(2) ts_primary_state_ids_40_ok(2) ts_primary_state_ids_41_ok(2)
  ts_primary_state_ids_42_ok(2) ts_primary_state_ids_43_ok(2) ts_primary_state_ids_44_ok(2)
  ts_primary_state_ids_45_ok(2) ts_primary_state_ids_46_ok(2) ts_primary_state_ids_47_ok(2)
  ts_primary_state_ids_48_ok(2) ts_primary_state_ids_49_ok(2) ts_primary_state_ids_50_ok(2)
  ts_primary_state_ids_51_ok(2) ts_primary_state_ids_52_ok(2) ts_primary_state_ids_53_ok(2)
  ts_primary_state_ids_54_ok(2) ts_primary_state_ids_55_ok(2) ts_primary_state_ids_56_ok(2)
  ts_primary_state_ids_57_ok(2) ts_primary_state_ids_58_ok(2) ts_primary_state_ids_59_ok(2)
  ts_primary_state_ids_60_ok(2) ts_primary_state_ids_61_ok(2) ts_primary_state_ids_62_ok(2)
  ts_primary_state_ids_63_ok(2) ts_primary_state_ids_64_ok(2) ts_primary_state_ids_65_ok(2)
  ts_primary_state_ids_66_ok(2) ts_primary_state_ids_67_ok(2) ts_primary_state_ids_68_ok(2)
  ts_primary_state_ids_69_ok(2) ts_primary_state_ids_70_ok(2) ts_primary_state_ids_71_ok(2)
  ts_primary_state_ids_72_ok(2) ts_primary_state_ids_73_ok(2) ts_primary_state_ids_74_ok(2)
  ts_primary_state_ids_75_ok(2) ts_primary_state_ids_76_ok(2) ts_primary_state_ids_77_ok(2)
  ts_primary_state_ids_78_ok(2) ts_primary_state_ids_79_ok(2) ts_primary_state_ids_80_ok(2)
  ts_primary_state_ids_81_ok(2) ts_primary_state_ids_82_ok(2) ts_primary_state_ids_83_ok(2)
  ts_primary_state_ids_84_ok(2) ts_primary_state_ids_85_ok(2)

lemma primary_runs_end: "runs_end 0 primary_runs = Some 12758"
  unfolding primary_runs_def by (simp add: primary_lengths)

lemma primary_runs_concat: "ts_primary_state_ids = concat (map snd primary_runs)"
  by (simp add: ts_primary_state_ids_def primary_runs_def)

lemma length_primary: "length ts_primary_state_ids = STATE_COUNT"
  using runs_end_length [OF primary_runs_end] by (simp add: primary_runs_concat STATE_COUNT_def)

lemma primary_run_nth:
  assumes "(j, xs) \<in> set primary_runs" "k < length xs"
  shows "ts_primary_state_ids ! (j + k) = xs ! k \<and> j + k < STATE_COUNT"
proof -
  from runs_end_slice [OF primary_runs_end assms(1)]
  have s: "j + length xs \<le> 12758" "take (length xs) (drop j ts_primary_state_ids) = xs"
    by (simp_all add: primary_runs_concat)
  have "xs ! k = take (length xs) (drop j ts_primary_state_ids) ! k" by (simp add: s(2))
  also have "\<dots> = ts_primary_state_ids ! (j + k)"
    using assms(2) s(1) length_primary by (simp add: STATE_COUNT_def)
  finally show ?thesis using assms(2) s(1) by (simp add: STATE_COUNT_def)
qed

lemma fixed_facts:
  assumes "fixed_in j xs fs" "(j, xs) \<in> set primary_runs"
  shows "list_all primary_fixed fs"
proof -
  have "primary_fixed f" if "f \<in> set fs" for f
    using primary_run_nth [OF assms(2), of "f - j"] fixed_in_nth [OF assms(1) that]
    by (auto simp: primary_fixed_def)
  then show ?thesis by (simp add: list_all_iff)
qed

lemma primary_runs_mem:
  "(0, ts_primary_state_ids_0) \<in> set primary_runs"
  "(150, ts_primary_state_ids_1) \<in> set primary_runs"
  "(300, ts_primary_state_ids_2) \<in> set primary_runs"
  "(450, ts_primary_state_ids_3) \<in> set primary_runs"
  "(600, ts_primary_state_ids_4) \<in> set primary_runs"
  "(750, ts_primary_state_ids_5) \<in> set primary_runs"
  "(900, ts_primary_state_ids_6) \<in> set primary_runs"
  "(1050, ts_primary_state_ids_7) \<in> set primary_runs"
  "(1200, ts_primary_state_ids_8) \<in> set primary_runs"
  "(1350, ts_primary_state_ids_9) \<in> set primary_runs"
  "(1500, ts_primary_state_ids_10) \<in> set primary_runs"
  "(1650, ts_primary_state_ids_11) \<in> set primary_runs"
  "(1800, ts_primary_state_ids_12) \<in> set primary_runs"
  "(1950, ts_primary_state_ids_13) \<in> set primary_runs"
  "(2100, ts_primary_state_ids_14) \<in> set primary_runs"
  "(2250, ts_primary_state_ids_15) \<in> set primary_runs"
  "(2400, ts_primary_state_ids_16) \<in> set primary_runs"
  "(2550, ts_primary_state_ids_17) \<in> set primary_runs"
  "(2700, ts_primary_state_ids_18) \<in> set primary_runs"
  "(2850, ts_primary_state_ids_19) \<in> set primary_runs"
  "(3000, ts_primary_state_ids_20) \<in> set primary_runs"
  "(3150, ts_primary_state_ids_21) \<in> set primary_runs"
  "(3300, ts_primary_state_ids_22) \<in> set primary_runs"
  "(3450, ts_primary_state_ids_23) \<in> set primary_runs"
  "(3600, ts_primary_state_ids_24) \<in> set primary_runs"
  "(3750, ts_primary_state_ids_25) \<in> set primary_runs"
  "(3900, ts_primary_state_ids_26) \<in> set primary_runs"
  "(4050, ts_primary_state_ids_27) \<in> set primary_runs"
  "(4200, ts_primary_state_ids_28) \<in> set primary_runs"
  "(4350, ts_primary_state_ids_29) \<in> set primary_runs"
  "(4500, ts_primary_state_ids_30) \<in> set primary_runs"
  "(4650, ts_primary_state_ids_31) \<in> set primary_runs"
  "(4800, ts_primary_state_ids_32) \<in> set primary_runs"
  "(4950, ts_primary_state_ids_33) \<in> set primary_runs"
  "(5100, ts_primary_state_ids_34) \<in> set primary_runs"
  "(5250, ts_primary_state_ids_35) \<in> set primary_runs"
  "(5400, ts_primary_state_ids_36) \<in> set primary_runs"
  "(5550, ts_primary_state_ids_37) \<in> set primary_runs"
  "(5700, ts_primary_state_ids_38) \<in> set primary_runs"
  "(5850, ts_primary_state_ids_39) \<in> set primary_runs"
  "(6000, ts_primary_state_ids_40) \<in> set primary_runs"
  "(6150, ts_primary_state_ids_41) \<in> set primary_runs"
  "(6300, ts_primary_state_ids_42) \<in> set primary_runs"
  "(6450, ts_primary_state_ids_43) \<in> set primary_runs"
  "(6600, ts_primary_state_ids_44) \<in> set primary_runs"
  "(6750, ts_primary_state_ids_45) \<in> set primary_runs"
  "(6900, ts_primary_state_ids_46) \<in> set primary_runs"
  "(7050, ts_primary_state_ids_47) \<in> set primary_runs"
  "(7200, ts_primary_state_ids_48) \<in> set primary_runs"
  "(7350, ts_primary_state_ids_49) \<in> set primary_runs"
  "(7500, ts_primary_state_ids_50) \<in> set primary_runs"
  "(7650, ts_primary_state_ids_51) \<in> set primary_runs"
  "(7800, ts_primary_state_ids_52) \<in> set primary_runs"
  "(7950, ts_primary_state_ids_53) \<in> set primary_runs"
  "(8100, ts_primary_state_ids_54) \<in> set primary_runs"
  "(8250, ts_primary_state_ids_55) \<in> set primary_runs"
  "(8400, ts_primary_state_ids_56) \<in> set primary_runs"
  "(8550, ts_primary_state_ids_57) \<in> set primary_runs"
  "(8700, ts_primary_state_ids_58) \<in> set primary_runs"
  "(8850, ts_primary_state_ids_59) \<in> set primary_runs"
  "(9000, ts_primary_state_ids_60) \<in> set primary_runs"
  "(9150, ts_primary_state_ids_61) \<in> set primary_runs"
  "(9300, ts_primary_state_ids_62) \<in> set primary_runs"
  "(9450, ts_primary_state_ids_63) \<in> set primary_runs"
  "(9600, ts_primary_state_ids_64) \<in> set primary_runs"
  "(9750, ts_primary_state_ids_65) \<in> set primary_runs"
  "(9900, ts_primary_state_ids_66) \<in> set primary_runs"
  "(10050, ts_primary_state_ids_67) \<in> set primary_runs"
  "(10200, ts_primary_state_ids_68) \<in> set primary_runs"
  "(10350, ts_primary_state_ids_69) \<in> set primary_runs"
  "(10500, ts_primary_state_ids_70) \<in> set primary_runs"
  "(10650, ts_primary_state_ids_71) \<in> set primary_runs"
  "(10800, ts_primary_state_ids_72) \<in> set primary_runs"
  "(10950, ts_primary_state_ids_73) \<in> set primary_runs"
  "(11100, ts_primary_state_ids_74) \<in> set primary_runs"
  "(11250, ts_primary_state_ids_75) \<in> set primary_runs"
  "(11400, ts_primary_state_ids_76) \<in> set primary_runs"
  "(11550, ts_primary_state_ids_77) \<in> set primary_runs"
  "(11700, ts_primary_state_ids_78) \<in> set primary_runs"
  "(11850, ts_primary_state_ids_79) \<in> set primary_runs"
  "(12000, ts_primary_state_ids_80) \<in> set primary_runs"
  "(12150, ts_primary_state_ids_81) \<in> set primary_runs"
  "(12300, ts_primary_state_ids_82) \<in> set primary_runs"
  "(12450, ts_primary_state_ids_83) \<in> set primary_runs"
  "(12600, ts_primary_state_ids_84) \<in> set primary_runs"
  "(12750, ts_primary_state_ids_85) \<in> set primary_runs"
  by (simp_all add: primary_runs_def)

lemma primary_fixed_0:
  "primary_fixed 0 \<and> primary_fixed 1 \<and> primary_fixed 2 \<and> primary_fixed 3 \<and>
   primary_fixed 4 \<and> primary_fixed 5 \<and> primary_fixed 6 \<and> primary_fixed 7 \<and>
   primary_fixed 8 \<and> primary_fixed 9 \<and> primary_fixed 10 \<and> primary_fixed 11 \<and>
   primary_fixed 12 \<and> primary_fixed 13 \<and> primary_fixed 14 \<and>
   primary_fixed 15 \<and> primary_fixed 16 \<and> primary_fixed 17 \<and>
   primary_fixed 18 \<and> primary_fixed 19 \<and> primary_fixed 20 \<and>
   primary_fixed 21 \<and> primary_fixed 22 \<and> primary_fixed 23 \<and>
   primary_fixed 24 \<and> primary_fixed 25 \<and> primary_fixed 26 \<and>
   primary_fixed 27 \<and> primary_fixed 28 \<and> primary_fixed 29 \<and>
   primary_fixed 30 \<and> primary_fixed 31 \<and> primary_fixed 32 \<and>
   primary_fixed 33 \<and> primary_fixed 34 \<and> primary_fixed 35 \<and>
   primary_fixed 36 \<and> primary_fixed 37 \<and> primary_fixed 38 \<and>
   primary_fixed 39 \<and> primary_fixed 40 \<and> primary_fixed 41 \<and>
   primary_fixed 42 \<and> primary_fixed 43 \<and> primary_fixed 44 \<and>
   primary_fixed 45 \<and> primary_fixed 46 \<and> primary_fixed 47 \<and>
   primary_fixed 48 \<and> primary_fixed 49 \<and> primary_fixed 50 \<and>
   primary_fixed 51 \<and> primary_fixed 52 \<and> primary_fixed 53 \<and>
   primary_fixed 54 \<and> primary_fixed 55 \<and> primary_fixed 56 \<and>
   primary_fixed 57 \<and> primary_fixed 58 \<and> primary_fixed 59 \<and>
   primary_fixed 60 \<and> primary_fixed 61 \<and> primary_fixed 62 \<and>
   primary_fixed 63 \<and> primary_fixed 64 \<and> primary_fixed 65 \<and>
   primary_fixed 67 \<and> primary_fixed 68 \<and> primary_fixed 69 \<and>
   primary_fixed 70 \<and> primary_fixed 71 \<and> primary_fixed 72 \<and>
   primary_fixed 73 \<and> primary_fixed 74 \<and> primary_fixed 75 \<and>
   primary_fixed 76 \<and> primary_fixed 77 \<and> primary_fixed 78 \<and>
   primary_fixed 79 \<and> primary_fixed 80 \<and> primary_fixed 81 \<and>
   primary_fixed 82 \<and> primary_fixed 83 \<and> primary_fixed 84 \<and>
   primary_fixed 85 \<and> primary_fixed 86 \<and> primary_fixed 87 \<and>
   primary_fixed 88 \<and> primary_fixed 89 \<and> primary_fixed 90 \<and>
   primary_fixed 91 \<and> primary_fixed 92 \<and> primary_fixed 93 \<and>
   primary_fixed 94 \<and> primary_fixed 95 \<and> primary_fixed 96 \<and>
   primary_fixed 97 \<and> primary_fixed 98 \<and> primary_fixed 99 \<and>
   primary_fixed 100 \<and> primary_fixed 101 \<and> primary_fixed 102 \<and>
   primary_fixed 103 \<and> primary_fixed 104 \<and> primary_fixed 105 \<and>
   primary_fixed 106 \<and> primary_fixed 107 \<and> primary_fixed 108 \<and>
   primary_fixed 109 \<and> primary_fixed 110 \<and> primary_fixed 111 \<and>
   primary_fixed 112 \<and> primary_fixed 113 \<and> primary_fixed 114 \<and>
   primary_fixed 115 \<and> primary_fixed 116 \<and> primary_fixed 117 \<and>
   primary_fixed 118 \<and> primary_fixed 119 \<and> primary_fixed 120 \<and>
   primary_fixed 121 \<and> primary_fixed 122 \<and> primary_fixed 123 \<and>
   primary_fixed 124 \<and> primary_fixed 125 \<and> primary_fixed 126 \<and>
   primary_fixed 127 \<and> primary_fixed 128 \<and> primary_fixed 129 \<and>
   primary_fixed 130 \<and> primary_fixed 131 \<and> primary_fixed 132 \<and>
   primary_fixed 133 \<and> primary_fixed 134 \<and> primary_fixed 135 \<and>
   primary_fixed 136 \<and> primary_fixed 137 \<and> primary_fixed 138 \<and>
   primary_fixed 139 \<and> primary_fixed 140 \<and> primary_fixed 141 \<and>
   primary_fixed 142 \<and> primary_fixed 143 \<and> primary_fixed 144 \<and>
   primary_fixed 145 \<and> primary_fixed 146 \<and> primary_fixed 147 \<and>
   primary_fixed 148 \<and> primary_fixed 149"
  using fixed_facts [OF ts_primary_state_ids_0_ok(3) primary_runs_mem(1)] by simp

lemma primary_fixed_1:
  "primary_fixed 150 \<and> primary_fixed 151 \<and> primary_fixed 152 \<and>
   primary_fixed 153 \<and> primary_fixed 154 \<and> primary_fixed 155 \<and>
   primary_fixed 156 \<and> primary_fixed 157 \<and> primary_fixed 158 \<and>
   primary_fixed 159 \<and> primary_fixed 160 \<and> primary_fixed 161 \<and>
   primary_fixed 162 \<and> primary_fixed 163 \<and> primary_fixed 164 \<and>
   primary_fixed 165 \<and> primary_fixed 166 \<and> primary_fixed 167 \<and>
   primary_fixed 168 \<and> primary_fixed 169 \<and> primary_fixed 170 \<and>
   primary_fixed 171 \<and> primary_fixed 172 \<and> primary_fixed 173 \<and>
   primary_fixed 174 \<and> primary_fixed 175 \<and> primary_fixed 176 \<and>
   primary_fixed 177 \<and> primary_fixed 178 \<and> primary_fixed 179 \<and>
   primary_fixed 180 \<and> primary_fixed 181 \<and> primary_fixed 182 \<and>
   primary_fixed 183 \<and> primary_fixed 184 \<and> primary_fixed 185 \<and>
   primary_fixed 186 \<and> primary_fixed 187 \<and> primary_fixed 188 \<and>
   primary_fixed 189 \<and> primary_fixed 190 \<and> primary_fixed 191 \<and>
   primary_fixed 192 \<and> primary_fixed 193 \<and> primary_fixed 194 \<and>
   primary_fixed 195 \<and> primary_fixed 196 \<and> primary_fixed 197 \<and>
   primary_fixed 198 \<and> primary_fixed 199 \<and> primary_fixed 200 \<and>
   primary_fixed 201 \<and> primary_fixed 202 \<and> primary_fixed 203 \<and>
   primary_fixed 204 \<and> primary_fixed 205 \<and> primary_fixed 206 \<and>
   primary_fixed 207 \<and> primary_fixed 208 \<and> primary_fixed 209 \<and>
   primary_fixed 210 \<and> primary_fixed 211 \<and> primary_fixed 212 \<and>
   primary_fixed 213 \<and> primary_fixed 214 \<and> primary_fixed 215 \<and>
   primary_fixed 216 \<and> primary_fixed 217 \<and> primary_fixed 218 \<and>
   primary_fixed 219 \<and> primary_fixed 220 \<and> primary_fixed 221 \<and>
   primary_fixed 222 \<and> primary_fixed 223 \<and> primary_fixed 224 \<and>
   primary_fixed 225 \<and> primary_fixed 226 \<and> primary_fixed 227 \<and>
   primary_fixed 228 \<and> primary_fixed 229 \<and> primary_fixed 230 \<and>
   primary_fixed 231 \<and> primary_fixed 232 \<and> primary_fixed 233 \<and>
   primary_fixed 234 \<and> primary_fixed 235 \<and> primary_fixed 236 \<and>
   primary_fixed 237 \<and> primary_fixed 238 \<and> primary_fixed 239 \<and>
   primary_fixed 240 \<and> primary_fixed 241 \<and> primary_fixed 242 \<and>
   primary_fixed 243 \<and> primary_fixed 244 \<and> primary_fixed 245 \<and>
   primary_fixed 246 \<and> primary_fixed 247 \<and> primary_fixed 248 \<and>
   primary_fixed 249 \<and> primary_fixed 250 \<and> primary_fixed 251 \<and>
   primary_fixed 252 \<and> primary_fixed 253 \<and> primary_fixed 254 \<and>
   primary_fixed 255 \<and> primary_fixed 256 \<and> primary_fixed 257 \<and>
   primary_fixed 258 \<and> primary_fixed 259 \<and> primary_fixed 260 \<and>
   primary_fixed 261 \<and> primary_fixed 262 \<and> primary_fixed 263 \<and>
   primary_fixed 264 \<and> primary_fixed 265 \<and> primary_fixed 266 \<and>
   primary_fixed 267 \<and> primary_fixed 268 \<and> primary_fixed 269 \<and>
   primary_fixed 270 \<and> primary_fixed 271 \<and> primary_fixed 272 \<and>
   primary_fixed 273 \<and> primary_fixed 274 \<and> primary_fixed 275 \<and>
   primary_fixed 276 \<and> primary_fixed 277 \<and> primary_fixed 278 \<and>
   primary_fixed 279 \<and> primary_fixed 280 \<and> primary_fixed 281 \<and>
   primary_fixed 282 \<and> primary_fixed 283 \<and> primary_fixed 284 \<and>
   primary_fixed 285 \<and> primary_fixed 286 \<and> primary_fixed 287 \<and>
   primary_fixed 288 \<and> primary_fixed 289 \<and> primary_fixed 290 \<and>
   primary_fixed 291 \<and> primary_fixed 292 \<and> primary_fixed 293 \<and>
   primary_fixed 294 \<and> primary_fixed 295 \<and> primary_fixed 296 \<and>
   primary_fixed 297 \<and> primary_fixed 298 \<and> primary_fixed 299"
  using fixed_facts [OF ts_primary_state_ids_1_ok(3) primary_runs_mem(2)] by simp

lemma primary_fixed_2:
  "primary_fixed 300 \<and> primary_fixed 301 \<and> primary_fixed 302 \<and>
   primary_fixed 303 \<and> primary_fixed 304 \<and> primary_fixed 305 \<and>
   primary_fixed 306 \<and> primary_fixed 307 \<and> primary_fixed 308 \<and>
   primary_fixed 309 \<and> primary_fixed 310 \<and> primary_fixed 311 \<and>
   primary_fixed 312 \<and> primary_fixed 313 \<and> primary_fixed 314 \<and>
   primary_fixed 315 \<and> primary_fixed 316 \<and> primary_fixed 317 \<and>
   primary_fixed 318 \<and> primary_fixed 319 \<and> primary_fixed 320 \<and>
   primary_fixed 321 \<and> primary_fixed 322 \<and> primary_fixed 323 \<and>
   primary_fixed 324 \<and> primary_fixed 325 \<and> primary_fixed 326 \<and>
   primary_fixed 327 \<and> primary_fixed 328 \<and> primary_fixed 329 \<and>
   primary_fixed 330 \<and> primary_fixed 331 \<and> primary_fixed 332 \<and>
   primary_fixed 333 \<and> primary_fixed 334 \<and> primary_fixed 335 \<and>
   primary_fixed 336 \<and> primary_fixed 337 \<and> primary_fixed 338 \<and>
   primary_fixed 339 \<and> primary_fixed 340 \<and> primary_fixed 341 \<and>
   primary_fixed 342 \<and> primary_fixed 343 \<and> primary_fixed 344 \<and>
   primary_fixed 345 \<and> primary_fixed 346 \<and> primary_fixed 347 \<and>
   primary_fixed 348 \<and> primary_fixed 349 \<and> primary_fixed 350 \<and>
   primary_fixed 351 \<and> primary_fixed 352 \<and> primary_fixed 353 \<and>
   primary_fixed 354 \<and> primary_fixed 355 \<and> primary_fixed 356 \<and>
   primary_fixed 357 \<and> primary_fixed 358 \<and> primary_fixed 359 \<and>
   primary_fixed 360 \<and> primary_fixed 361 \<and> primary_fixed 362 \<and>
   primary_fixed 363 \<and> primary_fixed 364 \<and> primary_fixed 365 \<and>
   primary_fixed 366 \<and> primary_fixed 367 \<and> primary_fixed 368 \<and>
   primary_fixed 369 \<and> primary_fixed 370 \<and> primary_fixed 371 \<and>
   primary_fixed 372 \<and> primary_fixed 373 \<and> primary_fixed 374 \<and>
   primary_fixed 375 \<and> primary_fixed 376 \<and> primary_fixed 377 \<and>
   primary_fixed 378 \<and> primary_fixed 379 \<and> primary_fixed 380 \<and>
   primary_fixed 381 \<and> primary_fixed 382 \<and> primary_fixed 383 \<and>
   primary_fixed 384 \<and> primary_fixed 385 \<and> primary_fixed 386 \<and>
   primary_fixed 387 \<and> primary_fixed 388 \<and> primary_fixed 389 \<and>
   primary_fixed 390 \<and> primary_fixed 391 \<and> primary_fixed 392 \<and>
   primary_fixed 393 \<and> primary_fixed 394 \<and> primary_fixed 395 \<and>
   primary_fixed 396 \<and> primary_fixed 397 \<and> primary_fixed 398 \<and>
   primary_fixed 399 \<and> primary_fixed 400 \<and> primary_fixed 401 \<and>
   primary_fixed 402 \<and> primary_fixed 403 \<and> primary_fixed 404 \<and>
   primary_fixed 405 \<and> primary_fixed 406 \<and> primary_fixed 407 \<and>
   primary_fixed 408 \<and> primary_fixed 409 \<and> primary_fixed 410 \<and>
   primary_fixed 411 \<and> primary_fixed 412 \<and> primary_fixed 413 \<and>
   primary_fixed 414 \<and> primary_fixed 415 \<and> primary_fixed 416 \<and>
   primary_fixed 417 \<and> primary_fixed 418 \<and> primary_fixed 419 \<and>
   primary_fixed 420 \<and> primary_fixed 421 \<and> primary_fixed 422 \<and>
   primary_fixed 423 \<and> primary_fixed 424 \<and> primary_fixed 425 \<and>
   primary_fixed 426 \<and> primary_fixed 427 \<and> primary_fixed 428 \<and>
   primary_fixed 429 \<and> primary_fixed 430 \<and> primary_fixed 431 \<and>
   primary_fixed 432 \<and> primary_fixed 433 \<and> primary_fixed 434 \<and>
   primary_fixed 435 \<and> primary_fixed 436 \<and> primary_fixed 437 \<and>
   primary_fixed 438 \<and> primary_fixed 439 \<and> primary_fixed 440 \<and>
   primary_fixed 441 \<and> primary_fixed 442 \<and> primary_fixed 443 \<and>
   primary_fixed 444 \<and> primary_fixed 445 \<and> primary_fixed 446 \<and>
   primary_fixed 447 \<and> primary_fixed 448 \<and> primary_fixed 449"
  using fixed_facts [OF ts_primary_state_ids_2_ok(3) primary_runs_mem(3)] by simp

lemma primary_fixed_3:
  "primary_fixed 450 \<and> primary_fixed 451 \<and> primary_fixed 452 \<and>
   primary_fixed 453 \<and> primary_fixed 454 \<and> primary_fixed 455 \<and>
   primary_fixed 456 \<and> primary_fixed 457 \<and> primary_fixed 458 \<and>
   primary_fixed 459 \<and> primary_fixed 460 \<and> primary_fixed 461 \<and>
   primary_fixed 462 \<and> primary_fixed 463"
  using fixed_facts [OF ts_primary_state_ids_3_ok(3) primary_runs_mem(4)] by simp

lemma primary_fixed_6:
  "primary_fixed 917 \<and> primary_fixed 920 \<and> primary_fixed 921 \<and>
   primary_fixed 923 \<and> primary_fixed 929 \<and> primary_fixed 930 \<and>
   primary_fixed 931 \<and> primary_fixed 932 \<and> primary_fixed 933 \<and>
   primary_fixed 934 \<and> primary_fixed 935 \<and> primary_fixed 936 \<and>
   primary_fixed 937 \<and> primary_fixed 938 \<and> primary_fixed 939 \<and>
   primary_fixed 940 \<and> primary_fixed 941 \<and> primary_fixed 942 \<and>
   primary_fixed 943 \<and> primary_fixed 944 \<and> primary_fixed 945 \<and>
   primary_fixed 946 \<and> primary_fixed 947 \<and> primary_fixed 948 \<and>
   primary_fixed 949 \<and> primary_fixed 950 \<and> primary_fixed 951 \<and>
   primary_fixed 952 \<and> primary_fixed 953 \<and> primary_fixed 954 \<and>
   primary_fixed 955 \<and> primary_fixed 956 \<and> primary_fixed 957 \<and>
   primary_fixed 958 \<and> primary_fixed 959 \<and> primary_fixed 960 \<and>
   primary_fixed 961 \<and> primary_fixed 962 \<and> primary_fixed 963 \<and>
   primary_fixed 964 \<and> primary_fixed 965 \<and> primary_fixed 966 \<and>
   primary_fixed 967 \<and> primary_fixed 968 \<and> primary_fixed 970 \<and>
   primary_fixed 971 \<and> primary_fixed 972 \<and> primary_fixed 973 \<and>
   primary_fixed 974 \<and> primary_fixed 975 \<and> primary_fixed 976 \<and>
   primary_fixed 977 \<and> primary_fixed 978 \<and> primary_fixed 979 \<and>
   primary_fixed 980 \<and> primary_fixed 981 \<and> primary_fixed 982 \<and>
   primary_fixed 983 \<and> primary_fixed 984 \<and> primary_fixed 985 \<and>
   primary_fixed 986 \<and> primary_fixed 987 \<and> primary_fixed 988 \<and>
   primary_fixed 989 \<and> primary_fixed 990 \<and> primary_fixed 991 \<and>
   primary_fixed 992 \<and> primary_fixed 993 \<and> primary_fixed 994 \<and>
   primary_fixed 995 \<and> primary_fixed 997 \<and> primary_fixed 998 \<and>
   primary_fixed 1000 \<and> primary_fixed 1001 \<and> primary_fixed 1003 \<and>
   primary_fixed 1004 \<and> primary_fixed 1005 \<and> primary_fixed 1006 \<and>
   primary_fixed 1007 \<and> primary_fixed 1008 \<and> primary_fixed 1009 \<and>
   primary_fixed 1010 \<and> primary_fixed 1011 \<and> primary_fixed 1012 \<and>
   primary_fixed 1015 \<and> primary_fixed 1016 \<and> primary_fixed 1017 \<and>
   primary_fixed 1018 \<and> primary_fixed 1021 \<and> primary_fixed 1026 \<and>
   primary_fixed 1027 \<and> primary_fixed 1030 \<and> primary_fixed 1037 \<and>
   primary_fixed 1040 \<and> primary_fixed 1041 \<and> primary_fixed 1043 \<and>
   primary_fixed 1044 \<and> primary_fixed 1046 \<and> primary_fixed 1048"
  using fixed_facts [OF ts_primary_state_ids_6_ok(3) primary_runs_mem(7)] by simp

lemma primary_fixed_7:
  "primary_fixed 1050 \<and> primary_fixed 1053 \<and> primary_fixed 1055 \<and>
   primary_fixed 1056 \<and> primary_fixed 1058 \<and> primary_fixed 1059 \<and>
   primary_fixed 1062 \<and> primary_fixed 1064 \<and> primary_fixed 1065 \<and>
   primary_fixed 1066 \<and> primary_fixed 1067 \<and> primary_fixed 1069 \<and>
   primary_fixed 1070 \<and> primary_fixed 1072 \<and> primary_fixed 1073 \<and>
   primary_fixed 1075 \<and> primary_fixed 1076 \<and> primary_fixed 1077 \<and>
   primary_fixed 1078 \<and> primary_fixed 1079 \<and> primary_fixed 1081 \<and>
   primary_fixed 1082 \<and> primary_fixed 1085 \<and> primary_fixed 1087 \<and>
   primary_fixed 1088 \<and> primary_fixed 1089 \<and> primary_fixed 1092 \<and>
   primary_fixed 1101 \<and> primary_fixed 1103 \<and> primary_fixed 1104 \<and>
   primary_fixed 1110 \<and> primary_fixed 1116 \<and> primary_fixed 1117 \<and>
   primary_fixed 1118 \<and> primary_fixed 1119 \<and> primary_fixed 1121 \<and>
   primary_fixed 1133 \<and> primary_fixed 1138 \<and> primary_fixed 1142 \<and>
   primary_fixed 1148 \<and> primary_fixed 1154 \<and> primary_fixed 1157 \<and>
   primary_fixed 1158 \<and> primary_fixed 1160 \<and> primary_fixed 1161 \<and>
   primary_fixed 1167 \<and> primary_fixed 1169 \<and> primary_fixed 1173 \<and>
   primary_fixed 1187"
  using fixed_facts [OF ts_primary_state_ids_7_ok(3) primary_runs_mem(8)] by simp

lemma primary_fixed_8:
  "primary_fixed 1214 \<and> primary_fixed 1218 \<and> primary_fixed 1219 \<and>
   primary_fixed 1220 \<and> primary_fixed 1222 \<and> primary_fixed 1223 \<and>
   primary_fixed 1224 \<and> primary_fixed 1225 \<and> primary_fixed 1226 \<and>
   primary_fixed 1227 \<and> primary_fixed 1228 \<and> primary_fixed 1229 \<and>
   primary_fixed 1230 \<and> primary_fixed 1231 \<and> primary_fixed 1232 \<and>
   primary_fixed 1233 \<and> primary_fixed 1234 \<and> primary_fixed 1235 \<and>
   primary_fixed 1236 \<and> primary_fixed 1237 \<and> primary_fixed 1238 \<and>
   primary_fixed 1239 \<and> primary_fixed 1240 \<and> primary_fixed 1241 \<and>
   primary_fixed 1242 \<and> primary_fixed 1243 \<and> primary_fixed 1244 \<and>
   primary_fixed 1245 \<and> primary_fixed 1246 \<and> primary_fixed 1247 \<and>
   primary_fixed 1248 \<and> primary_fixed 1249 \<and> primary_fixed 1250 \<and>
   primary_fixed 1251 \<and> primary_fixed 1253 \<and> primary_fixed 1254 \<and>
   primary_fixed 1255 \<and> primary_fixed 1256 \<and> primary_fixed 1257 \<and>
   primary_fixed 1258 \<and> primary_fixed 1259 \<and> primary_fixed 1260 \<and>
   primary_fixed 1261 \<and> primary_fixed 1262 \<and> primary_fixed 1263 \<and>
   primary_fixed 1264 \<and> primary_fixed 1265 \<and> primary_fixed 1266 \<and>
   primary_fixed 1268 \<and> primary_fixed 1269 \<and> primary_fixed 1270 \<and>
   primary_fixed 1271 \<and> primary_fixed 1272 \<and> primary_fixed 1274 \<and>
   primary_fixed 1275 \<and> primary_fixed 1276 \<and> primary_fixed 1278 \<and>
   primary_fixed 1280 \<and> primary_fixed 1281 \<and> primary_fixed 1282 \<and>
   primary_fixed 1284 \<and> primary_fixed 1285 \<and> primary_fixed 1286 \<and>
   primary_fixed 1287 \<and> primary_fixed 1288 \<and> primary_fixed 1289 \<and>
   primary_fixed 1290 \<and> primary_fixed 1291 \<and> primary_fixed 1294 \<and>
   primary_fixed 1295 \<and> primary_fixed 1296 \<and> primary_fixed 1298 \<and>
   primary_fixed 1299 \<and> primary_fixed 1302 \<and> primary_fixed 1303 \<and>
   primary_fixed 1304 \<and> primary_fixed 1305 \<and> primary_fixed 1306 \<and>
   primary_fixed 1307 \<and> primary_fixed 1308 \<and> primary_fixed 1309 \<and>
   primary_fixed 1310 \<and> primary_fixed 1311 \<and> primary_fixed 1312 \<and>
   primary_fixed 1313 \<and> primary_fixed 1314 \<and> primary_fixed 1316 \<and>
   primary_fixed 1317 \<and> primary_fixed 1318 \<and> primary_fixed 1319 \<and>
   primary_fixed 1320 \<and> primary_fixed 1321 \<and> primary_fixed 1322 \<and>
   primary_fixed 1324 \<and> primary_fixed 1325 \<and> primary_fixed 1326 \<and>
   primary_fixed 1327 \<and> primary_fixed 1328 \<and> primary_fixed 1329 \<and>
   primary_fixed 1330 \<and> primary_fixed 1331 \<and> primary_fixed 1334 \<and>
   primary_fixed 1335 \<and> primary_fixed 1339 \<and> primary_fixed 1340 \<and>
   primary_fixed 1341 \<and> primary_fixed 1343 \<and> primary_fixed 1345 \<and>
   primary_fixed 1346"
  using fixed_facts [OF ts_primary_state_ids_8_ok(3) primary_runs_mem(9)] by simp

lemma primary_fixed_9:
  "primary_fixed 1350 \<and> primary_fixed 1353 \<and> primary_fixed 1358 \<and>
   primary_fixed 1361 \<and> primary_fixed 1362 \<and> primary_fixed 1364 \<and>
   primary_fixed 1365 \<and> primary_fixed 1366 \<and> primary_fixed 1367 \<and>
   primary_fixed 1368 \<and> primary_fixed 1370 \<and> primary_fixed 1371 \<and>
   primary_fixed 1372 \<and> primary_fixed 1373 \<and> primary_fixed 1374 \<and>
   primary_fixed 1375 \<and> primary_fixed 1377 \<and> primary_fixed 1378 \<and>
   primary_fixed 1379 \<and> primary_fixed 1380 \<and> primary_fixed 1381 \<and>
   primary_fixed 1382 \<and> primary_fixed 1383 \<and> primary_fixed 1384 \<and>
   primary_fixed 1385 \<and> primary_fixed 1386 \<and> primary_fixed 1387 \<and>
   primary_fixed 1388 \<and> primary_fixed 1390 \<and> primary_fixed 1391 \<and>
   primary_fixed 1392 \<and> primary_fixed 1394 \<and> primary_fixed 1395 \<and>
   primary_fixed 1397 \<and> primary_fixed 1398 \<and> primary_fixed 1399 \<and>
   primary_fixed 1400 \<and> primary_fixed 1402 \<and> primary_fixed 1404 \<and>
   primary_fixed 1405 \<and> primary_fixed 1406 \<and> primary_fixed 1407 \<and>
   primary_fixed 1408 \<and> primary_fixed 1409 \<and> primary_fixed 1410 \<and>
   primary_fixed 1411 \<and> primary_fixed 1412 \<and> primary_fixed 1413 \<and>
   primary_fixed 1414 \<and> primary_fixed 1415 \<and> primary_fixed 1416 \<and>
   primary_fixed 1417 \<and> primary_fixed 1418 \<and> primary_fixed 1419 \<and>
   primary_fixed 1420 \<and> primary_fixed 1421 \<and> primary_fixed 1422 \<and>
   primary_fixed 1423 \<and> primary_fixed 1424 \<and> primary_fixed 1425 \<and>
   primary_fixed 1426 \<and> primary_fixed 1427 \<and> primary_fixed 1428 \<and>
   primary_fixed 1429 \<and> primary_fixed 1430 \<and> primary_fixed 1431 \<and>
   primary_fixed 1432 \<and> primary_fixed 1433 \<and> primary_fixed 1434 \<and>
   primary_fixed 1435 \<and> primary_fixed 1437 \<and> primary_fixed 1438 \<and>
   primary_fixed 1440 \<and> primary_fixed 1441 \<and> primary_fixed 1443 \<and>
   primary_fixed 1444 \<and> primary_fixed 1446 \<and> primary_fixed 1447 \<and>
   primary_fixed 1448 \<and> primary_fixed 1450 \<and> primary_fixed 1451 \<and>
   primary_fixed 1452 \<and> primary_fixed 1453 \<and> primary_fixed 1454 \<and>
   primary_fixed 1457 \<and> primary_fixed 1458 \<and> primary_fixed 1459 \<and>
   primary_fixed 1461 \<and> primary_fixed 1463 \<and> primary_fixed 1464 \<and>
   primary_fixed 1465 \<and> primary_fixed 1466 \<and> primary_fixed 1468 \<and>
   primary_fixed 1470 \<and> primary_fixed 1471 \<and> primary_fixed 1472 \<and>
   primary_fixed 1473 \<and> primary_fixed 1474 \<and> primary_fixed 1476 \<and>
   primary_fixed 1477 \<and> primary_fixed 1478 \<and> primary_fixed 1480 \<and>
   primary_fixed 1481 \<and> primary_fixed 1483 \<and> primary_fixed 1485 \<and>
   primary_fixed 1487 \<and> primary_fixed 1488 \<and> primary_fixed 1490 \<and>
   primary_fixed 1491 \<and> primary_fixed 1492 \<and> primary_fixed 1494 \<and>
   primary_fixed 1495 \<and> primary_fixed 1497 \<and> primary_fixed 1498"
  using fixed_facts [OF ts_primary_state_ids_9_ok(3) primary_runs_mem(10)] by simp

lemma primary_fixed_10:
  "primary_fixed 1500 \<and> primary_fixed 1502 \<and> primary_fixed 1503 \<and>
   primary_fixed 1504 \<and> primary_fixed 1505 \<and> primary_fixed 1507 \<and>
   primary_fixed 1509 \<and> primary_fixed 1510 \<and> primary_fixed 1511 \<and>
   primary_fixed 1513 \<and> primary_fixed 1514 \<and> primary_fixed 1515 \<and>
   primary_fixed 1516 \<and> primary_fixed 1517 \<and> primary_fixed 1519 \<and>
   primary_fixed 1520 \<and> primary_fixed 1522 \<and> primary_fixed 1523 \<and>
   primary_fixed 1525 \<and> primary_fixed 1528 \<and> primary_fixed 1531 \<and>
   primary_fixed 1533 \<and> primary_fixed 1537 \<and> primary_fixed 1540 \<and>
   primary_fixed 1542 \<and> primary_fixed 1545 \<and> primary_fixed 1549 \<and>
   primary_fixed 1551 \<and> primary_fixed 1553 \<and> primary_fixed 1559 \<and>
   primary_fixed 1566 \<and> primary_fixed 1574 \<and> primary_fixed 1575 \<and>
   primary_fixed 1580 \<and> primary_fixed 1583 \<and> primary_fixed 1586 \<and>
   primary_fixed 1589 \<and> primary_fixed 1595 \<and> primary_fixed 1600 \<and>
   primary_fixed 1605 \<and> primary_fixed 1606 \<and> primary_fixed 1608 \<and>
   primary_fixed 1611 \<and> primary_fixed 1613 \<and> primary_fixed 1616 \<and>
   primary_fixed 1620 \<and> primary_fixed 1623 \<and> primary_fixed 1626 \<and>
   primary_fixed 1629 \<and> primary_fixed 1632 \<and> primary_fixed 1636 \<and>
   primary_fixed 1639 \<and> primary_fixed 1644 \<and> primary_fixed 1647 \<and>
   primary_fixed 1649"
  using fixed_facts [OF ts_primary_state_ids_10_ok(3) primary_runs_mem(11)] by simp

lemma primary_fixed_11:
  "primary_fixed 1654 \<and> primary_fixed 1659 \<and> primary_fixed 1662 \<and>
   primary_fixed 1664 \<and> primary_fixed 1669 \<and> primary_fixed 1674 \<and>
   primary_fixed 1676 \<and> primary_fixed 1679 \<and> primary_fixed 1683 \<and>
   primary_fixed 1688 \<and> primary_fixed 1692 \<and> primary_fixed 1696 \<and>
   primary_fixed 1701 \<and> primary_fixed 1709 \<and> primary_fixed 1713 \<and>
   primary_fixed 1718 \<and> primary_fixed 1720 \<and> primary_fixed 1724 \<and>
   primary_fixed 1728 \<and> primary_fixed 1730 \<and> primary_fixed 1732 \<and>
   primary_fixed 1735 \<and> primary_fixed 1738 \<and> primary_fixed 1741 \<and>
   primary_fixed 1746 \<and> primary_fixed 1750 \<and> primary_fixed 1757 \<and>
   primary_fixed 1763 \<and> primary_fixed 1766 \<and> primary_fixed 1767 \<and>
   primary_fixed 1770 \<and> primary_fixed 1773 \<and> primary_fixed 1779 \<and>
   primary_fixed 1787 \<and> primary_fixed 1792 \<and> primary_fixed 1796 \<and>
   primary_fixed 1798"
  using fixed_facts [OF ts_primary_state_ids_11_ok(3) primary_runs_mem(12)] by simp

lemma primary_fixed_12:
  "primary_fixed 1803 \<and> primary_fixed 1811 \<and> primary_fixed 1815 \<and>
   primary_fixed 1845 \<and> primary_fixed 1847 \<and> primary_fixed 1848 \<and>
   primary_fixed 1859 \<and> primary_fixed 1860 \<and> primary_fixed 1861 \<and>
   primary_fixed 1863 \<and> primary_fixed 1865 \<and> primary_fixed 1869 \<and>
   primary_fixed 1877 \<and> primary_fixed 1881 \<and> primary_fixed 1888 \<and>
   primary_fixed 1889 \<and> primary_fixed 1890 \<and> primary_fixed 1891 \<and>
   primary_fixed 1894 \<and> primary_fixed 1895 \<and> primary_fixed 1897 \<and>
   primary_fixed 1899 \<and> primary_fixed 1900 \<and> primary_fixed 1903 \<and>
   primary_fixed 1904"
  using fixed_facts [OF ts_primary_state_ids_12_ok(3) primary_runs_mem(13)] by simp

lemma primary_fixed_13:
  "primary_fixed 1991 \<and> primary_fixed 1998 \<and> primary_fixed 2010 \<and>
   primary_fixed 2021 \<and> primary_fixed 2022 \<and> primary_fixed 2023 \<and>
   primary_fixed 2024 \<and> primary_fixed 2025 \<and> primary_fixed 2027 \<and>
   primary_fixed 2028 \<and> primary_fixed 2029 \<and> primary_fixed 2031 \<and>
   primary_fixed 2032 \<and> primary_fixed 2033 \<and> primary_fixed 2034 \<and>
   primary_fixed 2036 \<and> primary_fixed 2037 \<and> primary_fixed 2040 \<and>
   primary_fixed 2049 \<and> primary_fixed 2050 \<and> primary_fixed 2055 \<and>
   primary_fixed 2059 \<and> primary_fixed 2064"
  using fixed_facts [OF ts_primary_state_ids_13_ok(3) primary_runs_mem(14)] by simp

lemma primary_fixed_14:
  "primary_fixed 2102 \<and> primary_fixed 2107 \<and> primary_fixed 2108 \<and>
   primary_fixed 2109 \<and> primary_fixed 2110 \<and> primary_fixed 2111 \<and>
   primary_fixed 2112 \<and> primary_fixed 2113 \<and> primary_fixed 2114 \<and>
   primary_fixed 2115 \<and> primary_fixed 2116 \<and> primary_fixed 2117 \<and>
   primary_fixed 2118 \<and> primary_fixed 2119 \<and> primary_fixed 2120 \<and>
   primary_fixed 2121 \<and> primary_fixed 2122 \<and> primary_fixed 2123 \<and>
   primary_fixed 2124 \<and> primary_fixed 2125 \<and> primary_fixed 2126 \<and>
   primary_fixed 2127 \<and> primary_fixed 2128 \<and> primary_fixed 2129 \<and>
   primary_fixed 2130 \<and> primary_fixed 2131 \<and> primary_fixed 2132 \<and>
   primary_fixed 2133 \<and> primary_fixed 2134 \<and> primary_fixed 2135 \<and>
   primary_fixed 2136 \<and> primary_fixed 2137 \<and> primary_fixed 2138 \<and>
   primary_fixed 2139 \<and> primary_fixed 2140 \<and> primary_fixed 2141 \<and>
   primary_fixed 2142 \<and> primary_fixed 2143 \<and> primary_fixed 2144 \<and>
   primary_fixed 2145 \<and> primary_fixed 2146 \<and> primary_fixed 2147 \<and>
   primary_fixed 2148 \<and> primary_fixed 2149 \<and> primary_fixed 2150 \<and>
   primary_fixed 2151 \<and> primary_fixed 2152 \<and> primary_fixed 2153 \<and>
   primary_fixed 2154 \<and> primary_fixed 2155 \<and> primary_fixed 2156 \<and>
   primary_fixed 2157 \<and> primary_fixed 2158 \<and> primary_fixed 2159 \<and>
   primary_fixed 2160 \<and> primary_fixed 2161 \<and> primary_fixed 2162 \<and>
   primary_fixed 2163 \<and> primary_fixed 2164 \<and> primary_fixed 2165 \<and>
   primary_fixed 2166 \<and> primary_fixed 2167 \<and> primary_fixed 2169 \<and>
   primary_fixed 2170 \<and> primary_fixed 2171 \<and> primary_fixed 2172 \<and>
   primary_fixed 2173 \<and> primary_fixed 2174 \<and> primary_fixed 2175 \<and>
   primary_fixed 2176 \<and> primary_fixed 2177 \<and> primary_fixed 2178 \<and>
   primary_fixed 2180 \<and> primary_fixed 2182 \<and> primary_fixed 2184 \<and>
   primary_fixed 2185 \<and> primary_fixed 2186 \<and> primary_fixed 2188 \<and>
   primary_fixed 2189 \<and> primary_fixed 2190 \<and> primary_fixed 2191 \<and>
   primary_fixed 2192 \<and> primary_fixed 2194 \<and> primary_fixed 2197 \<and>
   primary_fixed 2198 \<and> primary_fixed 2200 \<and> primary_fixed 2201 \<and>
   primary_fixed 2207 \<and> primary_fixed 2208 \<and> primary_fixed 2211 \<and>
   primary_fixed 2213 \<and> primary_fixed 2215 \<and> primary_fixed 2218 \<and>
   primary_fixed 2221 \<and> primary_fixed 2223 \<and> primary_fixed 2228 \<and>
   primary_fixed 2232 \<and> primary_fixed 2233 \<and> primary_fixed 2245 \<and>
   primary_fixed 2246 \<and> primary_fixed 2248 \<and> primary_fixed 2249"
  using fixed_facts [OF ts_primary_state_ids_14_ok(3) primary_runs_mem(15)] by simp

lemma primary_fixed_15:
  "primary_fixed 2284 \<and> primary_fixed 2294 \<and> primary_fixed 2310 \<and>
   primary_fixed 2314 \<and> primary_fixed 2329 \<and> primary_fixed 2333 \<and>
   primary_fixed 2337 \<and> primary_fixed 2339 \<and> primary_fixed 2340 \<and>
   primary_fixed 2342 \<and> primary_fixed 2343 \<and> primary_fixed 2346 \<and>
   primary_fixed 2347 \<and> primary_fixed 2350 \<and> primary_fixed 2354 \<and>
   primary_fixed 2355 \<and> primary_fixed 2358 \<and> primary_fixed 2359 \<and>
   primary_fixed 2360 \<and> primary_fixed 2363 \<and> primary_fixed 2365 \<and>
   primary_fixed 2367 \<and> primary_fixed 2369 \<and> primary_fixed 2373 \<and>
   primary_fixed 2374 \<and> primary_fixed 2375 \<and> primary_fixed 2376 \<and>
   primary_fixed 2381 \<and> primary_fixed 2384 \<and> primary_fixed 2386 \<and>
   primary_fixed 2395 \<and> primary_fixed 2397"
  using fixed_facts [OF ts_primary_state_ids_15_ok(3) primary_runs_mem(16)] by simp

lemma primary_fixed_16:
  "primary_fixed 2400 \<and> primary_fixed 2403 \<and> primary_fixed 2406 \<and>
   primary_fixed 2408 \<and> primary_fixed 2412 \<and> primary_fixed 2419 \<and>
   primary_fixed 2420 \<and> primary_fixed 2421 \<and> primary_fixed 2422"
  using fixed_facts [OF ts_primary_state_ids_16_ok(3) primary_runs_mem(17)] by simp

lemma primary_fixed_18:
  "primary_fixed 2701 \<and> primary_fixed 2705 \<and> primary_fixed 2709 \<and>
   primary_fixed 2710 \<and> primary_fixed 2712 \<and> primary_fixed 2716 \<and>
   primary_fixed 2726 \<and> primary_fixed 2740 \<and> primary_fixed 2752 \<and>
   primary_fixed 2753 \<and> primary_fixed 2754 \<and> primary_fixed 2770 \<and>
   primary_fixed 2771 \<and> primary_fixed 2772 \<and> primary_fixed 2773 \<and>
   primary_fixed 2774 \<and> primary_fixed 2792 \<and> primary_fixed 2797 \<and>
   primary_fixed 2817 \<and> primary_fixed 2828 \<and> primary_fixed 2838 \<and>
   primary_fixed 2839 \<and> primary_fixed 2840 \<and> primary_fixed 2841 \<and>
   primary_fixed 2842 \<and> primary_fixed 2843 \<and> primary_fixed 2844 \<and>
   primary_fixed 2845 \<and> primary_fixed 2846 \<and> primary_fixed 2847 \<and>
   primary_fixed 2848 \<and> primary_fixed 2849"
  using fixed_facts [OF ts_primary_state_ids_18_ok(3) primary_runs_mem(19)] by simp

lemma primary_fixed_19:
  "primary_fixed 2850 \<and> primary_fixed 2851 \<and> primary_fixed 2852 \<and>
   primary_fixed 2853 \<and> primary_fixed 2854 \<and> primary_fixed 2855 \<and>
   primary_fixed 2856 \<and> primary_fixed 2857 \<and> primary_fixed 2858 \<and>
   primary_fixed 2859 \<and> primary_fixed 2860 \<and> primary_fixed 2861 \<and>
   primary_fixed 2862 \<and> primary_fixed 2863 \<and> primary_fixed 2864 \<and>
   primary_fixed 2865 \<and> primary_fixed 2866 \<and> primary_fixed 2867 \<and>
   primary_fixed 2868 \<and> primary_fixed 2869 \<and> primary_fixed 2870 \<and>
   primary_fixed 2871 \<and> primary_fixed 2872 \<and> primary_fixed 2873 \<and>
   primary_fixed 2874 \<and> primary_fixed 2875 \<and> primary_fixed 2876 \<and>
   primary_fixed 2877 \<and> primary_fixed 2878 \<and> primary_fixed 2879 \<and>
   primary_fixed 2880 \<and> primary_fixed 2881 \<and> primary_fixed 2882 \<and>
   primary_fixed 2883 \<and> primary_fixed 2884 \<and> primary_fixed 2885 \<and>
   primary_fixed 2886 \<and> primary_fixed 2887 \<and> primary_fixed 2888 \<and>
   primary_fixed 2889 \<and> primary_fixed 2890 \<and> primary_fixed 2896 \<and>
   primary_fixed 2898 \<and> primary_fixed 2899 \<and> primary_fixed 2906 \<and>
   primary_fixed 2907 \<and> primary_fixed 2909 \<and> primary_fixed 2916 \<and>
   primary_fixed 2917 \<and> primary_fixed 2918 \<and> primary_fixed 2919 \<and>
   primary_fixed 2920 \<and> primary_fixed 2921 \<and> primary_fixed 2922 \<and>
   primary_fixed 2923 \<and> primary_fixed 2924 \<and> primary_fixed 2925 \<and>
   primary_fixed 2926 \<and> primary_fixed 2927 \<and> primary_fixed 2928 \<and>
   primary_fixed 2929 \<and> primary_fixed 2930 \<and> primary_fixed 2931 \<and>
   primary_fixed 2932 \<and> primary_fixed 2933 \<and> primary_fixed 2934 \<and>
   primary_fixed 2935 \<and> primary_fixed 2936 \<and> primary_fixed 2937 \<and>
   primary_fixed 2938 \<and> primary_fixed 2939 \<and> primary_fixed 2940 \<and>
   primary_fixed 2943 \<and> primary_fixed 2945 \<and> primary_fixed 2949 \<and>
   primary_fixed 2950 \<and> primary_fixed 2952 \<and> primary_fixed 2968 \<and>
   primary_fixed 2973"
  using fixed_facts [OF ts_primary_state_ids_19_ok(3) primary_runs_mem(20)] by simp

lemma primary_fixed_20:
  "primary_fixed 3030 \<and> primary_fixed 3033 \<and> primary_fixed 3035 \<and>
   primary_fixed 3039 \<and> primary_fixed 3048 \<and> primary_fixed 3052 \<and>
   primary_fixed 3066 \<and> primary_fixed 3073 \<and> primary_fixed 3085 \<and>
   primary_fixed 3097 \<and> primary_fixed 3098 \<and> primary_fixed 3101 \<and>
   primary_fixed 3102 \<and> primary_fixed 3118 \<and> primary_fixed 3119 \<and>
   primary_fixed 3120 \<and> primary_fixed 3121 \<and> primary_fixed 3122 \<and>
   primary_fixed 3123 \<and> primary_fixed 3124 \<and> primary_fixed 3125 \<and>
   primary_fixed 3126 \<and> primary_fixed 3127 \<and> primary_fixed 3128 \<and>
   primary_fixed 3129 \<and> primary_fixed 3130 \<and> primary_fixed 3135 \<and>
   primary_fixed 3137 \<and> primary_fixed 3138 \<and> primary_fixed 3140 \<and>
   primary_fixed 3141 \<and> primary_fixed 3143 \<and> primary_fixed 3144 \<and>
   primary_fixed 3145 \<and> primary_fixed 3146 \<and> primary_fixed 3147 \<and>
   primary_fixed 3148 \<and> primary_fixed 3149"
  using fixed_facts [OF ts_primary_state_ids_20_ok(3) primary_runs_mem(21)] by simp

lemma primary_fixed_21:
  "primary_fixed 3150 \<and> primary_fixed 3157 \<and> primary_fixed 3158 \<and>
   primary_fixed 3159 \<and> primary_fixed 3160 \<and> primary_fixed 3161 \<and>
   primary_fixed 3162 \<and> primary_fixed 3163 \<and> primary_fixed 3164 \<and>
   primary_fixed 3165 \<and> primary_fixed 3166 \<and> primary_fixed 3167 \<and>
   primary_fixed 3168 \<and> primary_fixed 3169 \<and> primary_fixed 3170 \<and>
   primary_fixed 3171 \<and> primary_fixed 3172 \<and> primary_fixed 3176 \<and>
   primary_fixed 3182 \<and> primary_fixed 3183 \<and> primary_fixed 3184 \<and>
   primary_fixed 3185 \<and> primary_fixed 3187 \<and> primary_fixed 3189 \<and>
   primary_fixed 3190 \<and> primary_fixed 3191 \<and> primary_fixed 3193 \<and>
   primary_fixed 3194 \<and> primary_fixed 3195 \<and> primary_fixed 3198 \<and>
   primary_fixed 3199 \<and> primary_fixed 3200 \<and> primary_fixed 3202 \<and>
   primary_fixed 3203 \<and> primary_fixed 3204 \<and> primary_fixed 3218 \<and>
   primary_fixed 3237 \<and> primary_fixed 3248"
  using fixed_facts [OF ts_primary_state_ids_21_ok(3) primary_runs_mem(22)] by simp

lemma primary_fixed_22:
  "primary_fixed 3407"
  using fixed_facts [OF ts_primary_state_ids_22_ok(3) primary_runs_mem(23)] by simp

lemma primary_fixed_23:
  "primary_fixed 3461 \<and> primary_fixed 3472 \<and> primary_fixed 3497 \<and>
   primary_fixed 3527"
  using fixed_facts [OF ts_primary_state_ids_23_ok(3) primary_runs_mem(24)] by simp

lemma primary_fixed_24:
  "primary_fixed 3629 \<and> primary_fixed 3637 \<and> primary_fixed 3639 \<and>
   primary_fixed 3653 \<and> primary_fixed 3660 \<and> primary_fixed 3661 \<and>
   primary_fixed 3662 \<and> primary_fixed 3663 \<and> primary_fixed 3664 \<and>
   primary_fixed 3665 \<and> primary_fixed 3666 \<and> primary_fixed 3667 \<and>
   primary_fixed 3668 \<and> primary_fixed 3669 \<and> primary_fixed 3672 \<and>
   primary_fixed 3673 \<and> primary_fixed 3674 \<and> primary_fixed 3677 \<and>
   primary_fixed 3679 \<and> primary_fixed 3680 \<and> primary_fixed 3681 \<and>
   primary_fixed 3707 \<and> primary_fixed 3714 \<and> primary_fixed 3717 \<and>
   primary_fixed 3738"
  using fixed_facts [OF ts_primary_state_ids_24_ok(3) primary_runs_mem(25)] by simp

lemma primary_fixed_25:
  "primary_fixed 3750 \<and> primary_fixed 3751 \<and> primary_fixed 3752 \<and>
   primary_fixed 3754 \<and> primary_fixed 3755 \<and> primary_fixed 3757 \<and>
   primary_fixed 3758 \<and> primary_fixed 3760 \<and> primary_fixed 3761 \<and>
   primary_fixed 3771 \<and> primary_fixed 3772 \<and> primary_fixed 3781 \<and>
   primary_fixed 3782 \<and> primary_fixed 3788 \<and> primary_fixed 3809 \<and>
   primary_fixed 3823 \<and> primary_fixed 3824 \<and> primary_fixed 3827 \<and>
   primary_fixed 3829 \<and> primary_fixed 3831 \<and> primary_fixed 3832 \<and>
   primary_fixed 3834 \<and> primary_fixed 3835 \<and> primary_fixed 3841 \<and>
   primary_fixed 3845 \<and> primary_fixed 3846 \<and> primary_fixed 3849 \<and>
   primary_fixed 3852 \<and> primary_fixed 3854 \<and> primary_fixed 3855 \<and>
   primary_fixed 3856 \<and> primary_fixed 3857 \<and> primary_fixed 3865 \<and>
   primary_fixed 3868 \<and> primary_fixed 3871 \<and> primary_fixed 3885 \<and>
   primary_fixed 3886 \<and> primary_fixed 3888 \<and> primary_fixed 3889 \<and>
   primary_fixed 3891 \<and> primary_fixed 3896 \<and> primary_fixed 3899"
  using fixed_facts [OF ts_primary_state_ids_25_ok(3) primary_runs_mem(26)] by simp

lemma primary_fixed_26:
  "primary_fixed 3900 \<and> primary_fixed 3901 \<and> primary_fixed 3902 \<and>
   primary_fixed 3903 \<and> primary_fixed 3905 \<and> primary_fixed 3908 \<and>
   primary_fixed 3909 \<and> primary_fixed 3910 \<and> primary_fixed 3911 \<and>
   primary_fixed 3913 \<and> primary_fixed 3915 \<and> primary_fixed 3916 \<and>
   primary_fixed 3917 \<and> primary_fixed 3918 \<and> primary_fixed 3922 \<and>
   primary_fixed 3923 \<and> primary_fixed 3925 \<and> primary_fixed 3927 \<and>
   primary_fixed 3929 \<and> primary_fixed 3933 \<and> primary_fixed 3939 \<and>
   primary_fixed 3941 \<and> primary_fixed 3945 \<and> primary_fixed 3946 \<and>
   primary_fixed 3947 \<and> primary_fixed 3948 \<and> primary_fixed 3949 \<and>
   primary_fixed 3951 \<and> primary_fixed 3954 \<and> primary_fixed 3955 \<and>
   primary_fixed 3956 \<and> primary_fixed 3960 \<and> primary_fixed 3961 \<and>
   primary_fixed 3962 \<and> primary_fixed 3965 \<and> primary_fixed 3967 \<and>
   primary_fixed 3969 \<and> primary_fixed 3971 \<and> primary_fixed 3982 \<and>
   primary_fixed 3997 \<and> primary_fixed 3998 \<and> primary_fixed 3999 \<and>
   primary_fixed 4001 \<and> primary_fixed 4004 \<and> primary_fixed 4005 \<and>
   primary_fixed 4006 \<and> primary_fixed 4008 \<and> primary_fixed 4009 \<and>
   primary_fixed 4011 \<and> primary_fixed 4012 \<and> primary_fixed 4013 \<and>
   primary_fixed 4014 \<and> primary_fixed 4015 \<and> primary_fixed 4017 \<and>
   primary_fixed 4018 \<and> primary_fixed 4019 \<and> primary_fixed 4021 \<and>
   primary_fixed 4024 \<and> primary_fixed 4025 \<and> primary_fixed 4026 \<and>
   primary_fixed 4030 \<and> primary_fixed 4033 \<and> primary_fixed 4035"
  using fixed_facts [OF ts_primary_state_ids_26_ok(3) primary_runs_mem(27)] by simp

lemma primary_fixed_27:
  "primary_fixed 4050 \<and> primary_fixed 4066 \<and> primary_fixed 4067 \<and>
   primary_fixed 4068 \<and> primary_fixed 4069 \<and> primary_fixed 4070 \<and>
   primary_fixed 4071 \<and> primary_fixed 4072 \<and> primary_fixed 4074 \<and>
   primary_fixed 4075 \<and> primary_fixed 4076 \<and> primary_fixed 4077 \<and>
   primary_fixed 4078 \<and> primary_fixed 4079 \<and> primary_fixed 4083 \<and>
   primary_fixed 4085 \<and> primary_fixed 4086 \<and> primary_fixed 4088 \<and>
   primary_fixed 4089 \<and> primary_fixed 4092 \<and> primary_fixed 4094 \<and>
   primary_fixed 4096 \<and> primary_fixed 4097 \<and> primary_fixed 4099 \<and>
   primary_fixed 4100 \<and> primary_fixed 4106 \<and> primary_fixed 4108 \<and>
   primary_fixed 4113 \<and> primary_fixed 4114 \<and> primary_fixed 4118 \<and>
   primary_fixed 4119 \<and> primary_fixed 4120 \<and> primary_fixed 4121 \<and>
   primary_fixed 4122 \<and> primary_fixed 4123 \<and> primary_fixed 4124 \<and>
   primary_fixed 4128 \<and> primary_fixed 4131 \<and> primary_fixed 4132 \<and>
   primary_fixed 4133 \<and> primary_fixed 4134 \<and> primary_fixed 4145 \<and>
   primary_fixed 4148 \<and> primary_fixed 4161 \<and> primary_fixed 4171 \<and>
   primary_fixed 4176 \<and> primary_fixed 4177 \<and> primary_fixed 4178 \<and>
   primary_fixed 4181 \<and> primary_fixed 4189 \<and> primary_fixed 4197"
  using fixed_facts [OF ts_primary_state_ids_27_ok(3) primary_runs_mem(28)] by simp

lemma primary_fixed_28:
  "primary_fixed 4201 \<and> primary_fixed 4202 \<and> primary_fixed 4244 \<and>
   primary_fixed 4259 \<and> primary_fixed 4267 \<and> primary_fixed 4281 \<and>
   primary_fixed 4282 \<and> primary_fixed 4283 \<and> primary_fixed 4284 \<and>
   primary_fixed 4286 \<and> primary_fixed 4287 \<and> primary_fixed 4288 \<and>
   primary_fixed 4289 \<and> primary_fixed 4290 \<and> primary_fixed 4293 \<and>
   primary_fixed 4295 \<and> primary_fixed 4299 \<and> primary_fixed 4302 \<and>
   primary_fixed 4307 \<and> primary_fixed 4308 \<and> primary_fixed 4311 \<and>
   primary_fixed 4312 \<and> primary_fixed 4313 \<and> primary_fixed 4314 \<and>
   primary_fixed 4315 \<and> primary_fixed 4316 \<and> primary_fixed 4317 \<and>
   primary_fixed 4318 \<and> primary_fixed 4319 \<and> primary_fixed 4320 \<and>
   primary_fixed 4321 \<and> primary_fixed 4322 \<and> primary_fixed 4323 \<and>
   primary_fixed 4324 \<and> primary_fixed 4325 \<and> primary_fixed 4326 \<and>
   primary_fixed 4327 \<and> primary_fixed 4328 \<and> primary_fixed 4329 \<and>
   primary_fixed 4330 \<and> primary_fixed 4331 \<and> primary_fixed 4332 \<and>
   primary_fixed 4333 \<and> primary_fixed 4334 \<and> primary_fixed 4335 \<and>
   primary_fixed 4336 \<and> primary_fixed 4337 \<and> primary_fixed 4338 \<and>
   primary_fixed 4339 \<and> primary_fixed 4340 \<and> primary_fixed 4341 \<and>
   primary_fixed 4342 \<and> primary_fixed 4343 \<and> primary_fixed 4344 \<and>
   primary_fixed 4345 \<and> primary_fixed 4346 \<and> primary_fixed 4347 \<and>
   primary_fixed 4348 \<and> primary_fixed 4349"
  using fixed_facts [OF ts_primary_state_ids_28_ok(3) primary_runs_mem(29)] by simp

lemma primary_fixed_29:
  "primary_fixed 4350 \<and> primary_fixed 4351 \<and> primary_fixed 4352 \<and>
   primary_fixed 4353 \<and> primary_fixed 4354 \<and> primary_fixed 4355 \<and>
   primary_fixed 4356 \<and> primary_fixed 4357 \<and> primary_fixed 4358 \<and>
   primary_fixed 4359 \<and> primary_fixed 4360 \<and> primary_fixed 4361 \<and>
   primary_fixed 4362 \<and> primary_fixed 4363 \<and> primary_fixed 4364 \<and>
   primary_fixed 4365 \<and> primary_fixed 4366 \<and> primary_fixed 4367 \<and>
   primary_fixed 4368 \<and> primary_fixed 4369 \<and> primary_fixed 4370 \<and>
   primary_fixed 4371 \<and> primary_fixed 4372 \<and> primary_fixed 4373 \<and>
   primary_fixed 4374 \<and> primary_fixed 4375 \<and> primary_fixed 4376 \<and>
   primary_fixed 4377 \<and> primary_fixed 4378 \<and> primary_fixed 4379 \<and>
   primary_fixed 4380 \<and> primary_fixed 4381 \<and> primary_fixed 4382 \<and>
   primary_fixed 4383 \<and> primary_fixed 4384 \<and> primary_fixed 4385 \<and>
   primary_fixed 4386 \<and> primary_fixed 4387 \<and> primary_fixed 4388 \<and>
   primary_fixed 4389 \<and> primary_fixed 4390 \<and> primary_fixed 4391 \<and>
   primary_fixed 4392 \<and> primary_fixed 4393 \<and> primary_fixed 4394 \<and>
   primary_fixed 4395 \<and> primary_fixed 4396 \<and> primary_fixed 4397 \<and>
   primary_fixed 4398 \<and> primary_fixed 4399 \<and> primary_fixed 4400 \<and>
   primary_fixed 4401 \<and> primary_fixed 4402 \<and> primary_fixed 4403 \<and>
   primary_fixed 4404 \<and> primary_fixed 4405 \<and> primary_fixed 4406 \<and>
   primary_fixed 4407 \<and> primary_fixed 4408 \<and> primary_fixed 4409 \<and>
   primary_fixed 4410 \<and> primary_fixed 4411 \<and> primary_fixed 4412 \<and>
   primary_fixed 4413 \<and> primary_fixed 4414 \<and> primary_fixed 4415 \<and>
   primary_fixed 4416 \<and> primary_fixed 4417 \<and> primary_fixed 4418 \<and>
   primary_fixed 4419 \<and> primary_fixed 4420 \<and> primary_fixed 4421 \<and>
   primary_fixed 4422 \<and> primary_fixed 4423 \<and> primary_fixed 4424 \<and>
   primary_fixed 4425 \<and> primary_fixed 4426 \<and> primary_fixed 4427 \<and>
   primary_fixed 4428 \<and> primary_fixed 4429 \<and> primary_fixed 4430 \<and>
   primary_fixed 4431 \<and> primary_fixed 4432 \<and> primary_fixed 4433 \<and>
   primary_fixed 4434 \<and> primary_fixed 4435 \<and> primary_fixed 4436 \<and>
   primary_fixed 4437 \<and> primary_fixed 4438 \<and> primary_fixed 4439 \<and>
   primary_fixed 4440 \<and> primary_fixed 4441 \<and> primary_fixed 4442 \<and>
   primary_fixed 4443 \<and> primary_fixed 4444 \<and> primary_fixed 4445 \<and>
   primary_fixed 4446 \<and> primary_fixed 4447 \<and> primary_fixed 4448 \<and>
   primary_fixed 4450 \<and> primary_fixed 4452 \<and> primary_fixed 4453 \<and>
   primary_fixed 4454 \<and> primary_fixed 4455 \<and> primary_fixed 4459 \<and>
   primary_fixed 4460 \<and> primary_fixed 4461 \<and> primary_fixed 4462 \<and>
   primary_fixed 4463 \<and> primary_fixed 4465 \<and> primary_fixed 4466 \<and>
   primary_fixed 4468 \<and> primary_fixed 4469 \<and> primary_fixed 4470 \<and>
   primary_fixed 4472 \<and> primary_fixed 4473 \<and> primary_fixed 4474 \<and>
   primary_fixed 4476 \<and> primary_fixed 4478 \<and> primary_fixed 4479 \<and>
   primary_fixed 4480 \<and> primary_fixed 4481 \<and> primary_fixed 4482 \<and>
   primary_fixed 4483 \<and> primary_fixed 4484 \<and> primary_fixed 4485 \<and>
   primary_fixed 4486 \<and> primary_fixed 4487 \<and> primary_fixed 4489 \<and>
   primary_fixed 4491 \<and> primary_fixed 4494 \<and> primary_fixed 4495 \<and>
   primary_fixed 4496 \<and> primary_fixed 4499"
  using fixed_facts [OF ts_primary_state_ids_29_ok(3) primary_runs_mem(30)] by simp

lemma primary_fixed_30:
  "primary_fixed 4500 \<and> primary_fixed 4502 \<and> primary_fixed 4503 \<and>
   primary_fixed 4504 \<and> primary_fixed 4505 \<and> primary_fixed 4506 \<and>
   primary_fixed 4507 \<and> primary_fixed 4508 \<and> primary_fixed 4509 \<and>
   primary_fixed 4510 \<and> primary_fixed 4511 \<and> primary_fixed 4512 \<and>
   primary_fixed 4513 \<and> primary_fixed 4514 \<and> primary_fixed 4515 \<and>
   primary_fixed 4516 \<and> primary_fixed 4517 \<and> primary_fixed 4518 \<and>
   primary_fixed 4519 \<and> primary_fixed 4520 \<and> primary_fixed 4521 \<and>
   primary_fixed 4524 \<and> primary_fixed 4525 \<and> primary_fixed 4526 \<and>
   primary_fixed 4527 \<and> primary_fixed 4529 \<and> primary_fixed 4530 \<and>
   primary_fixed 4531 \<and> primary_fixed 4532 \<and> primary_fixed 4533 \<and>
   primary_fixed 4535 \<and> primary_fixed 4536 \<and> primary_fixed 4538 \<and>
   primary_fixed 4539 \<and> primary_fixed 4540 \<and> primary_fixed 4541 \<and>
   primary_fixed 4543 \<and> primary_fixed 4544 \<and> primary_fixed 4545 \<and>
   primary_fixed 4550 \<and> primary_fixed 4552 \<and> primary_fixed 4554 \<and>
   primary_fixed 4555 \<and> primary_fixed 4560 \<and> primary_fixed 4562 \<and>
   primary_fixed 4563 \<and> primary_fixed 4566 \<and> primary_fixed 4567 \<and>
   primary_fixed 4569 \<and> primary_fixed 4570 \<and> primary_fixed 4571 \<and>
   primary_fixed 4572 \<and> primary_fixed 4573 \<and> primary_fixed 4574 \<and>
   primary_fixed 4575 \<and> primary_fixed 4576 \<and> primary_fixed 4577 \<and>
   primary_fixed 4580 \<and> primary_fixed 4582 \<and> primary_fixed 4583 \<and>
   primary_fixed 4584 \<and> primary_fixed 4585 \<and> primary_fixed 4586 \<and>
   primary_fixed 4587 \<and> primary_fixed 4588 \<and> primary_fixed 4589 \<and>
   primary_fixed 4590 \<and> primary_fixed 4591 \<and> primary_fixed 4592 \<and>
   primary_fixed 4593 \<and> primary_fixed 4594 \<and> primary_fixed 4595 \<and>
   primary_fixed 4596 \<and> primary_fixed 4597 \<and> primary_fixed 4598 \<and>
   primary_fixed 4599 \<and> primary_fixed 4600 \<and> primary_fixed 4601 \<and>
   primary_fixed 4602 \<and> primary_fixed 4603 \<and> primary_fixed 4604 \<and>
   primary_fixed 4605 \<and> primary_fixed 4607 \<and> primary_fixed 4608 \<and>
   primary_fixed 4609 \<and> primary_fixed 4611 \<and> primary_fixed 4612 \<and>
   primary_fixed 4613 \<and> primary_fixed 4614 \<and> primary_fixed 4616 \<and>
   primary_fixed 4617 \<and> primary_fixed 4618 \<and> primary_fixed 4619 \<and>
   primary_fixed 4620 \<and> primary_fixed 4621 \<and> primary_fixed 4622 \<and>
   primary_fixed 4623 \<and> primary_fixed 4624 \<and> primary_fixed 4625 \<and>
   primary_fixed 4626 \<and> primary_fixed 4627 \<and> primary_fixed 4628 \<and>
   primary_fixed 4629 \<and> primary_fixed 4630 \<and> primary_fixed 4631 \<and>
   primary_fixed 4632 \<and> primary_fixed 4633 \<and> primary_fixed 4634 \<and>
   primary_fixed 4635 \<and> primary_fixed 4636 \<and> primary_fixed 4637 \<and>
   primary_fixed 4638 \<and> primary_fixed 4639 \<and> primary_fixed 4640 \<and>
   primary_fixed 4642 \<and> primary_fixed 4643 \<and> primary_fixed 4644 \<and>
   primary_fixed 4645 \<and> primary_fixed 4646 \<and> primary_fixed 4647 \<and>
   primary_fixed 4648 \<and> primary_fixed 4649"
  using fixed_facts [OF ts_primary_state_ids_30_ok(3) primary_runs_mem(31)] by simp

lemma primary_fixed_31:
  "primary_fixed 4650 \<and> primary_fixed 4651 \<and> primary_fixed 4652 \<and>
   primary_fixed 4653 \<and> primary_fixed 4654 \<and> primary_fixed 4655 \<and>
   primary_fixed 4656 \<and> primary_fixed 4657 \<and> primary_fixed 4658 \<and>
   primary_fixed 4659 \<and> primary_fixed 4660 \<and> primary_fixed 4661 \<and>
   primary_fixed 4662 \<and> primary_fixed 4663 \<and> primary_fixed 4664 \<and>
   primary_fixed 4665 \<and> primary_fixed 4666 \<and> primary_fixed 4667 \<and>
   primary_fixed 4668 \<and> primary_fixed 4670 \<and> primary_fixed 4671 \<and>
   primary_fixed 4672 \<and> primary_fixed 4673 \<and> primary_fixed 4675 \<and>
   primary_fixed 4676 \<and> primary_fixed 4677 \<and> primary_fixed 4678 \<and>
   primary_fixed 4679 \<and> primary_fixed 4680 \<and> primary_fixed 4681 \<and>
   primary_fixed 4683 \<and> primary_fixed 4685 \<and> primary_fixed 4686 \<and>
   primary_fixed 4687 \<and> primary_fixed 4688 \<and> primary_fixed 4689 \<and>
   primary_fixed 4690 \<and> primary_fixed 4691 \<and> primary_fixed 4692 \<and>
   primary_fixed 4693 \<and> primary_fixed 4694 \<and> primary_fixed 4695 \<and>
   primary_fixed 4696 \<and> primary_fixed 4697 \<and> primary_fixed 4698 \<and>
   primary_fixed 4699 \<and> primary_fixed 4700 \<and> primary_fixed 4701 \<and>
   primary_fixed 4702 \<and> primary_fixed 4703 \<and> primary_fixed 4704 \<and>
   primary_fixed 4705 \<and> primary_fixed 4706 \<and> primary_fixed 4707 \<and>
   primary_fixed 4708 \<and> primary_fixed 4709 \<and> primary_fixed 4710 \<and>
   primary_fixed 4711 \<and> primary_fixed 4712 \<and> primary_fixed 4713 \<and>
   primary_fixed 4714 \<and> primary_fixed 4715 \<and> primary_fixed 4716 \<and>
   primary_fixed 4717 \<and> primary_fixed 4718 \<and> primary_fixed 4719 \<and>
   primary_fixed 4720 \<and> primary_fixed 4721 \<and> primary_fixed 4722 \<and>
   primary_fixed 4723 \<and> primary_fixed 4724 \<and> primary_fixed 4725 \<and>
   primary_fixed 4726 \<and> primary_fixed 4727 \<and> primary_fixed 4729 \<and>
   primary_fixed 4730 \<and> primary_fixed 4731 \<and> primary_fixed 4732 \<and>
   primary_fixed 4733 \<and> primary_fixed 4734 \<and> primary_fixed 4735 \<and>
   primary_fixed 4736 \<and> primary_fixed 4737 \<and> primary_fixed 4738 \<and>
   primary_fixed 4739 \<and> primary_fixed 4740 \<and> primary_fixed 4741 \<and>
   primary_fixed 4742 \<and> primary_fixed 4743 \<and> primary_fixed 4744 \<and>
   primary_fixed 4745 \<and> primary_fixed 4746 \<and> primary_fixed 4747 \<and>
   primary_fixed 4748 \<and> primary_fixed 4749 \<and> primary_fixed 4750 \<and>
   primary_fixed 4751 \<and> primary_fixed 4753 \<and> primary_fixed 4754 \<and>
   primary_fixed 4755 \<and> primary_fixed 4756 \<and> primary_fixed 4757 \<and>
   primary_fixed 4758 \<and> primary_fixed 4759 \<and> primary_fixed 4760 \<and>
   primary_fixed 4761 \<and> primary_fixed 4762 \<and> primary_fixed 4763 \<and>
   primary_fixed 4764 \<and> primary_fixed 4765 \<and> primary_fixed 4766 \<and>
   primary_fixed 4767 \<and> primary_fixed 4768 \<and> primary_fixed 4769 \<and>
   primary_fixed 4770 \<and> primary_fixed 4771 \<and> primary_fixed 4772 \<and>
   primary_fixed 4773 \<and> primary_fixed 4774 \<and> primary_fixed 4775 \<and>
   primary_fixed 4776 \<and> primary_fixed 4777 \<and> primary_fixed 4778 \<and>
   primary_fixed 4780 \<and> primary_fixed 4781 \<and> primary_fixed 4782 \<and>
   primary_fixed 4783 \<and> primary_fixed 4784 \<and> primary_fixed 4785 \<and>
   primary_fixed 4786 \<and> primary_fixed 4787 \<and> primary_fixed 4788 \<and>
   primary_fixed 4789 \<and> primary_fixed 4790 \<and> primary_fixed 4791"
  using fixed_facts [OF ts_primary_state_ids_31_ok(3) primary_runs_mem(32)] by simp

lemma primary_fixed_32:
  "primary_fixed 4801 \<and> primary_fixed 4803 \<and> primary_fixed 4804 \<and>
   primary_fixed 4805 \<and> primary_fixed 4806 \<and> primary_fixed 4807 \<and>
   primary_fixed 4808 \<and> primary_fixed 4809 \<and> primary_fixed 4810 \<and>
   primary_fixed 4812 \<and> primary_fixed 4813 \<and> primary_fixed 4815 \<and>
   primary_fixed 4816 \<and> primary_fixed 4817 \<and> primary_fixed 4818 \<and>
   primary_fixed 4819 \<and> primary_fixed 4820 \<and> primary_fixed 4821 \<and>
   primary_fixed 4823 \<and> primary_fixed 4824 \<and> primary_fixed 4825 \<and>
   primary_fixed 4826 \<and> primary_fixed 4828 \<and> primary_fixed 4830 \<and>
   primary_fixed 4831 \<and> primary_fixed 4832 \<and> primary_fixed 4833 \<and>
   primary_fixed 4834 \<and> primary_fixed 4836 \<and> primary_fixed 4837 \<and>
   primary_fixed 4838 \<and> primary_fixed 4839 \<and> primary_fixed 4841 \<and>
   primary_fixed 4842 \<and> primary_fixed 4845 \<and> primary_fixed 4846 \<and>
   primary_fixed 4847 \<and> primary_fixed 4848 \<and> primary_fixed 4849 \<and>
   primary_fixed 4850 \<and> primary_fixed 4851 \<and> primary_fixed 4852 \<and>
   primary_fixed 4854 \<and> primary_fixed 4856 \<and> primary_fixed 4857 \<and>
   primary_fixed 4858 \<and> primary_fixed 4859 \<and> primary_fixed 4861 \<and>
   primary_fixed 4863 \<and> primary_fixed 4864 \<and> primary_fixed 4865 \<and>
   primary_fixed 4866 \<and> primary_fixed 4867 \<and> primary_fixed 4868 \<and>
   primary_fixed 4869 \<and> primary_fixed 4870 \<and> primary_fixed 4871 \<and>
   primary_fixed 4872 \<and> primary_fixed 4873 \<and> primary_fixed 4874 \<and>
   primary_fixed 4875 \<and> primary_fixed 4876 \<and> primary_fixed 4877 \<and>
   primary_fixed 4878 \<and> primary_fixed 4879 \<and> primary_fixed 4880 \<and>
   primary_fixed 4881 \<and> primary_fixed 4882 \<and> primary_fixed 4883 \<and>
   primary_fixed 4884 \<and> primary_fixed 4885 \<and> primary_fixed 4886 \<and>
   primary_fixed 4887 \<and> primary_fixed 4888 \<and> primary_fixed 4889 \<and>
   primary_fixed 4890 \<and> primary_fixed 4891 \<and> primary_fixed 4892 \<and>
   primary_fixed 4893 \<and> primary_fixed 4894 \<and> primary_fixed 4895 \<and>
   primary_fixed 4896 \<and> primary_fixed 4897 \<and> primary_fixed 4898 \<and>
   primary_fixed 4899 \<and> primary_fixed 4900 \<and> primary_fixed 4901 \<and>
   primary_fixed 4902 \<and> primary_fixed 4903 \<and> primary_fixed 4904 \<and>
   primary_fixed 4905 \<and> primary_fixed 4906 \<and> primary_fixed 4907 \<and>
   primary_fixed 4908 \<and> primary_fixed 4909 \<and> primary_fixed 4910 \<and>
   primary_fixed 4911 \<and> primary_fixed 4912 \<and> primary_fixed 4913 \<and>
   primary_fixed 4914 \<and> primary_fixed 4915 \<and> primary_fixed 4916 \<and>
   primary_fixed 4917 \<and> primary_fixed 4918 \<and> primary_fixed 4919 \<and>
   primary_fixed 4920 \<and> primary_fixed 4921 \<and> primary_fixed 4922 \<and>
   primary_fixed 4924 \<and> primary_fixed 4925 \<and> primary_fixed 4926 \<and>
   primary_fixed 4927 \<and> primary_fixed 4928 \<and> primary_fixed 4929 \<and>
   primary_fixed 4930 \<and> primary_fixed 4931 \<and> primary_fixed 4932 \<and>
   primary_fixed 4933 \<and> primary_fixed 4934 \<and> primary_fixed 4935 \<and>
   primary_fixed 4936 \<and> primary_fixed 4937 \<and> primary_fixed 4938 \<and>
   primary_fixed 4939 \<and> primary_fixed 4940 \<and> primary_fixed 4941 \<and>
   primary_fixed 4942 \<and> primary_fixed 4943 \<and> primary_fixed 4944 \<and>
   primary_fixed 4945 \<and> primary_fixed 4946 \<and> primary_fixed 4947 \<and>
   primary_fixed 4948 \<and> primary_fixed 4949"
  using fixed_facts [OF ts_primary_state_ids_32_ok(3) primary_runs_mem(33)] by simp

lemma primary_fixed_33:
  "primary_fixed 4950 \<and> primary_fixed 4951 \<and> primary_fixed 4952 \<and>
   primary_fixed 4953 \<and> primary_fixed 4954 \<and> primary_fixed 4955 \<and>
   primary_fixed 4956 \<and> primary_fixed 4957 \<and> primary_fixed 4960 \<and>
   primary_fixed 4962 \<and> primary_fixed 4963 \<and> primary_fixed 4964 \<and>
   primary_fixed 4966 \<and> primary_fixed 4968 \<and> primary_fixed 4970 \<and>
   primary_fixed 4973 \<and> primary_fixed 4975 \<and> primary_fixed 4978 \<and>
   primary_fixed 4980 \<and> primary_fixed 4982 \<and> primary_fixed 4984 \<and>
   primary_fixed 4986 \<and> primary_fixed 4987 \<and> primary_fixed 4989 \<and>
   primary_fixed 4991 \<and> primary_fixed 4998 \<and> primary_fixed 4999 \<and>
   primary_fixed 5000 \<and> primary_fixed 5001 \<and> primary_fixed 5002 \<and>
   primary_fixed 5004 \<and> primary_fixed 5005 \<and> primary_fixed 5006 \<and>
   primary_fixed 5007 \<and> primary_fixed 5008 \<and> primary_fixed 5009 \<and>
   primary_fixed 5011 \<and> primary_fixed 5012 \<and> primary_fixed 5013 \<and>
   primary_fixed 5014 \<and> primary_fixed 5015 \<and> primary_fixed 5016 \<and>
   primary_fixed 5018 \<and> primary_fixed 5019 \<and> primary_fixed 5020 \<and>
   primary_fixed 5021 \<and> primary_fixed 5023 \<and> primary_fixed 5024 \<and>
   primary_fixed 5025 \<and> primary_fixed 5026 \<and> primary_fixed 5034 \<and>
   primary_fixed 5036 \<and> primary_fixed 5037 \<and> primary_fixed 5039 \<and>
   primary_fixed 5040 \<and> primary_fixed 5042 \<and> primary_fixed 5044 \<and>
   primary_fixed 5045 \<and> primary_fixed 5046 \<and> primary_fixed 5047 \<and>
   primary_fixed 5048 \<and> primary_fixed 5049 \<and> primary_fixed 5050 \<and>
   primary_fixed 5051 \<and> primary_fixed 5053 \<and> primary_fixed 5054 \<and>
   primary_fixed 5055 \<and> primary_fixed 5056 \<and> primary_fixed 5057 \<and>
   primary_fixed 5058 \<and> primary_fixed 5060 \<and> primary_fixed 5062 \<and>
   primary_fixed 5063 \<and> primary_fixed 5066 \<and> primary_fixed 5067 \<and>
   primary_fixed 5069 \<and> primary_fixed 5071 \<and> primary_fixed 5072 \<and>
   primary_fixed 5074 \<and> primary_fixed 5075 \<and> primary_fixed 5077 \<and>
   primary_fixed 5078 \<and> primary_fixed 5080 \<and> primary_fixed 5081 \<and>
   primary_fixed 5083 \<and> primary_fixed 5087 \<and> primary_fixed 5089 \<and>
   primary_fixed 5091 \<and> primary_fixed 5092 \<and> primary_fixed 5098 \<and>
   primary_fixed 5099"
  using fixed_facts [OF ts_primary_state_ids_33_ok(3) primary_runs_mem(34)] by simp

lemma primary_fixed_34:
  "primary_fixed 5100 \<and> primary_fixed 5101 \<and> primary_fixed 5102 \<and>
   primary_fixed 5104 \<and> primary_fixed 5105 \<and> primary_fixed 5106 \<and>
   primary_fixed 5107 \<and> primary_fixed 5108 \<and> primary_fixed 5109 \<and>
   primary_fixed 5111 \<and> primary_fixed 5112 \<and> primary_fixed 5113 \<and>
   primary_fixed 5114 \<and> primary_fixed 5115 \<and> primary_fixed 5116 \<and>
   primary_fixed 5118 \<and> primary_fixed 5119 \<and> primary_fixed 5120 \<and>
   primary_fixed 5121 \<and> primary_fixed 5122 \<and> primary_fixed 5123 \<and>
   primary_fixed 5125 \<and> primary_fixed 5126 \<and> primary_fixed 5127 \<and>
   primary_fixed 5129 \<and> primary_fixed 5130 \<and> primary_fixed 5132 \<and>
   primary_fixed 5133 \<and> primary_fixed 5135 \<and> primary_fixed 5136 \<and>
   primary_fixed 5137 \<and> primary_fixed 5139 \<and> primary_fixed 5140 \<and>
   primary_fixed 5141 \<and> primary_fixed 5143 \<and> primary_fixed 5144 \<and>
   primary_fixed 5146 \<and> primary_fixed 5147 \<and> primary_fixed 5148 \<and>
   primary_fixed 5150 \<and> primary_fixed 5151 \<and> primary_fixed 5152 \<and>
   primary_fixed 5154 \<and> primary_fixed 5155 \<and> primary_fixed 5156 \<and>
   primary_fixed 5157 \<and> primary_fixed 5159 \<and> primary_fixed 5160 \<and>
   primary_fixed 5161 \<and> primary_fixed 5163 \<and> primary_fixed 5164 \<and>
   primary_fixed 5165 \<and> primary_fixed 5166 \<and> primary_fixed 5167 \<and>
   primary_fixed 5168 \<and> primary_fixed 5169 \<and> primary_fixed 5170 \<and>
   primary_fixed 5171 \<and> primary_fixed 5172 \<and> primary_fixed 5173 \<and>
   primary_fixed 5176 \<and> primary_fixed 5177 \<and> primary_fixed 5180 \<and>
   primary_fixed 5181 \<and> primary_fixed 5182 \<and> primary_fixed 5183 \<and>
   primary_fixed 5184 \<and> primary_fixed 5186 \<and> primary_fixed 5188 \<and>
   primary_fixed 5190 \<and> primary_fixed 5191 \<and> primary_fixed 5192 \<and>
   primary_fixed 5194 \<and> primary_fixed 5195 \<and> primary_fixed 5197 \<and>
   primary_fixed 5200 \<and> primary_fixed 5202 \<and> primary_fixed 5204 \<and>
   primary_fixed 5207 \<and> primary_fixed 5208 \<and> primary_fixed 5210 \<and>
   primary_fixed 5212 \<and> primary_fixed 5214 \<and> primary_fixed 5217 \<and>
   primary_fixed 5219 \<and> primary_fixed 5221 \<and> primary_fixed 5222 \<and>
   primary_fixed 5224 \<and> primary_fixed 5225 \<and> primary_fixed 5226 \<and>
   primary_fixed 5227 \<and> primary_fixed 5228 \<and> primary_fixed 5229 \<and>
   primary_fixed 5231 \<and> primary_fixed 5232 \<and> primary_fixed 5234 \<and>
   primary_fixed 5235 \<and> primary_fixed 5237 \<and> primary_fixed 5238 \<and>
   primary_fixed 5241 \<and> primary_fixed 5242 \<and> primary_fixed 5244 \<and>
   primary_fixed 5245 \<and> primary_fixed 5247 \<and> primary_fixed 5249"
  using fixed_facts [OF ts_primary_state_ids_34_ok(3) primary_runs_mem(35)] by simp

lemma primary_fixed_35:
  "primary_fixed 5251 \<and> primary_fixed 5252 \<and> primary_fixed 5254 \<and>
   primary_fixed 5256 \<and> primary_fixed 5257 \<and> primary_fixed 5259 \<and>
   primary_fixed 5261 \<and> primary_fixed 5263 \<and> primary_fixed 5264 \<and>
   primary_fixed 5265 \<and> primary_fixed 5267 \<and> primary_fixed 5268 \<and>
   primary_fixed 5270 \<and> primary_fixed 5272 \<and> primary_fixed 5274 \<and>
   primary_fixed 5275 \<and> primary_fixed 5277 \<and> primary_fixed 5278 \<and>
   primary_fixed 5279 \<and> primary_fixed 5280 \<and> primary_fixed 5282 \<and>
   primary_fixed 5284 \<and> primary_fixed 5286 \<and> primary_fixed 5289 \<and>
   primary_fixed 5291 \<and> primary_fixed 5292 \<and> primary_fixed 5294 \<and>
   primary_fixed 5295 \<and> primary_fixed 5296 \<and> primary_fixed 5298 \<and>
   primary_fixed 5300 \<and> primary_fixed 5302 \<and> primary_fixed 5304 \<and>
   primary_fixed 5305 \<and> primary_fixed 5307 \<and> primary_fixed 5308 \<and>
   primary_fixed 5309 \<and> primary_fixed 5311 \<and> primary_fixed 5313 \<and>
   primary_fixed 5314 \<and> primary_fixed 5317 \<and> primary_fixed 5319 \<and>
   primary_fixed 5320 \<and> primary_fixed 5323 \<and> primary_fixed 5324 \<and>
   primary_fixed 5325 \<and> primary_fixed 5327 \<and> primary_fixed 5328 \<and>
   primary_fixed 5331 \<and> primary_fixed 5333 \<and> primary_fixed 5336 \<and>
   primary_fixed 5338 \<and> primary_fixed 5343 \<and> primary_fixed 5344 \<and>
   primary_fixed 5346 \<and> primary_fixed 5347 \<and> primary_fixed 5348 \<and>
   primary_fixed 5350 \<and> primary_fixed 5351 \<and> primary_fixed 5352 \<and>
   primary_fixed 5353 \<and> primary_fixed 5354 \<and> primary_fixed 5356 \<and>
   primary_fixed 5357 \<and> primary_fixed 5358 \<and> primary_fixed 5359 \<and>
   primary_fixed 5360 \<and> primary_fixed 5362 \<and> primary_fixed 5364 \<and>
   primary_fixed 5365 \<and> primary_fixed 5367 \<and> primary_fixed 5368 \<and>
   primary_fixed 5370 \<and> primary_fixed 5372 \<and> primary_fixed 5374 \<and>
   primary_fixed 5375 \<and> primary_fixed 5377 \<and> primary_fixed 5378 \<and>
   primary_fixed 5380 \<and> primary_fixed 5381 \<and> primary_fixed 5382 \<and>
   primary_fixed 5383 \<and> primary_fixed 5385 \<and> primary_fixed 5386 \<and>
   primary_fixed 5389 \<and> primary_fixed 5391 \<and> primary_fixed 5392 \<and>
   primary_fixed 5393 \<and> primary_fixed 5394 \<and> primary_fixed 5396 \<and>
   primary_fixed 5398"
  using fixed_facts [OF ts_primary_state_ids_35_ok(3) primary_runs_mem(36)] by simp

lemma primary_fixed_36:
  "primary_fixed 5400 \<and> primary_fixed 5401 \<and> primary_fixed 5402 \<and>
   primary_fixed 5404 \<and> primary_fixed 5406 \<and> primary_fixed 5408 \<and>
   primary_fixed 5410 \<and> primary_fixed 5412 \<and> primary_fixed 5414 \<and>
   primary_fixed 5415 \<and> primary_fixed 5416 \<and> primary_fixed 5417 \<and>
   primary_fixed 5418 \<and> primary_fixed 5419 \<and> primary_fixed 5422 \<and>
   primary_fixed 5424 \<and> primary_fixed 5425 \<and> primary_fixed 5426 \<and>
   primary_fixed 5428 \<and> primary_fixed 5430 \<and> primary_fixed 5432 \<and>
   primary_fixed 5434 \<and> primary_fixed 5436 \<and> primary_fixed 5438 \<and>
   primary_fixed 5440 \<and> primary_fixed 5442 \<and> primary_fixed 5444 \<and>
   primary_fixed 5446 \<and> primary_fixed 5447 \<and> primary_fixed 5448 \<and>
   primary_fixed 5450 \<and> primary_fixed 5451 \<and> primary_fixed 5454 \<and>
   primary_fixed 5456 \<and> primary_fixed 5457 \<and> primary_fixed 5459 \<and>
   primary_fixed 5461 \<and> primary_fixed 5463 \<and> primary_fixed 5464 \<and>
   primary_fixed 5465 \<and> primary_fixed 5466 \<and> primary_fixed 5468 \<and>
   primary_fixed 5470 \<and> primary_fixed 5473 \<and> primary_fixed 5475 \<and>
   primary_fixed 5476 \<and> primary_fixed 5477 \<and> primary_fixed 5478 \<and>
   primary_fixed 5479 \<and> primary_fixed 5481 \<and> primary_fixed 5482 \<and>
   primary_fixed 5484 \<and> primary_fixed 5485 \<and> primary_fixed 5486 \<and>
   primary_fixed 5488 \<and> primary_fixed 5490 \<and> primary_fixed 5491 \<and>
   primary_fixed 5493 \<and> primary_fixed 5494 \<and> primary_fixed 5497 \<and>
   primary_fixed 5499 \<and> primary_fixed 5501 \<and> primary_fixed 5502 \<and>
   primary_fixed 5503 \<and> primary_fixed 5505 \<and> primary_fixed 5507 \<and>
   primary_fixed 5508 \<and> primary_fixed 5509 \<and> primary_fixed 5510 \<and>
   primary_fixed 5512 \<and> primary_fixed 5513 \<and> primary_fixed 5516 \<and>
   primary_fixed 5518 \<and> primary_fixed 5520 \<and> primary_fixed 5521 \<and>
   primary_fixed 5522 \<and> primary_fixed 5524 \<and> primary_fixed 5526 \<and>
   primary_fixed 5528 \<and> primary_fixed 5530 \<and> primary_fixed 5532 \<and>
   primary_fixed 5534 \<and> primary_fixed 5536 \<and> primary_fixed 5538 \<and>
   primary_fixed 5540 \<and> primary_fixed 5541 \<and> primary_fixed 5542 \<and>
   primary_fixed 5543 \<and> primary_fixed 5545 \<and> primary_fixed 5546 \<and>
   primary_fixed 5549"
  using fixed_facts [OF ts_primary_state_ids_36_ok(3) primary_runs_mem(37)] by simp

lemma primary_fixed_37:
  "primary_fixed 5551 \<and> primary_fixed 5553 \<and> primary_fixed 5554 \<and>
   primary_fixed 5556 \<and> primary_fixed 5558 \<and> primary_fixed 5560 \<and>
   primary_fixed 5562 \<and> primary_fixed 5564 \<and> primary_fixed 5565 \<and>
   primary_fixed 5567 \<and> primary_fixed 5569 \<and> primary_fixed 5571 \<and>
   primary_fixed 5575 \<and> primary_fixed 5582 \<and> primary_fixed 5602 \<and>
   primary_fixed 5606 \<and> primary_fixed 5608 \<and> primary_fixed 5623 \<and>
   primary_fixed 5626 \<and> primary_fixed 5636 \<and> primary_fixed 5638 \<and>
   primary_fixed 5640 \<and> primary_fixed 5644 \<and> primary_fixed 5645 \<and>
   primary_fixed 5646 \<and> primary_fixed 5648 \<and> primary_fixed 5650 \<and>
   primary_fixed 5653 \<and> primary_fixed 5657 \<and> primary_fixed 5659 \<and>
   primary_fixed 5660 \<and> primary_fixed 5673 \<and> primary_fixed 5675 \<and>
   primary_fixed 5676 \<and> primary_fixed 5680 \<and> primary_fixed 5684 \<and>
   primary_fixed 5687 \<and> primary_fixed 5694 \<and> primary_fixed 5695"
  using fixed_facts [OF ts_primary_state_ids_37_ok(3) primary_runs_mem(38)] by simp

lemma primary_fixed_38:
  "primary_fixed 5705 \<and> primary_fixed 5706 \<and> primary_fixed 5708 \<and>
   primary_fixed 5710 \<and> primary_fixed 5711 \<and> primary_fixed 5713 \<and>
   primary_fixed 5715 \<and> primary_fixed 5716 \<and> primary_fixed 5718 \<and>
   primary_fixed 5719 \<and> primary_fixed 5720 \<and> primary_fixed 5721 \<and>
   primary_fixed 5723 \<and> primary_fixed 5725 \<and> primary_fixed 5727 \<and>
   primary_fixed 5728 \<and> primary_fixed 5738 \<and> primary_fixed 5744 \<and>
   primary_fixed 5746 \<and> primary_fixed 5749 \<and> primary_fixed 5764 \<and>
   primary_fixed 5765 \<and> primary_fixed 5768 \<and> primary_fixed 5769 \<and>
   primary_fixed 5777 \<and> primary_fixed 5778 \<and> primary_fixed 5780 \<and>
   primary_fixed 5790 \<and> primary_fixed 5799 \<and> primary_fixed 5801 \<and>
   primary_fixed 5802 \<and> primary_fixed 5803 \<and> primary_fixed 5804 \<and>
   primary_fixed 5840"
  using fixed_facts [OF ts_primary_state_ids_38_ok(3) primary_runs_mem(39)] by simp

lemma primary_fixed_39:
  "primary_fixed 5864 \<and> primary_fixed 5891 \<and> primary_fixed 5892 \<and>
   primary_fixed 5893 \<and> primary_fixed 5915 \<and> primary_fixed 5919 \<and>
   primary_fixed 5920 \<and> primary_fixed 5925 \<and> primary_fixed 5926 \<and>
   primary_fixed 5930 \<and> primary_fixed 5933 \<and> primary_fixed 5936 \<and>
   primary_fixed 5937 \<and> primary_fixed 5941 \<and> primary_fixed 5943 \<and>
   primary_fixed 5946 \<and> primary_fixed 5950 \<and> primary_fixed 5951 \<and>
   primary_fixed 5953 \<and> primary_fixed 5954 \<and> primary_fixed 5957 \<and>
   primary_fixed 5961 \<and> primary_fixed 5962 \<and> primary_fixed 5969 \<and>
   primary_fixed 5971 \<and> primary_fixed 5975 \<and> primary_fixed 5977 \<and>
   primary_fixed 5981 \<and> primary_fixed 5983 \<and> primary_fixed 5985 \<and>
   primary_fixed 5992 \<and> primary_fixed 5995"
  using fixed_facts [OF ts_primary_state_ids_39_ok(3) primary_runs_mem(40)] by simp

lemma primary_fixed_40:
  "primary_fixed 6003 \<and> primary_fixed 6004 \<and> primary_fixed 6007 \<and>
   primary_fixed 6008 \<and> primary_fixed 6012 \<and> primary_fixed 6015 \<and>
   primary_fixed 6017 \<and> primary_fixed 6018 \<and> primary_fixed 6028 \<and>
   primary_fixed 6031 \<and> primary_fixed 6033 \<and> primary_fixed 6034 \<and>
   primary_fixed 6044 \<and> primary_fixed 6045 \<and> primary_fixed 6048 \<and>
   primary_fixed 6053 \<and> primary_fixed 6054 \<and> primary_fixed 6055 \<and>
   primary_fixed 6059 \<and> primary_fixed 6061 \<and> primary_fixed 6062 \<and>
   primary_fixed 6065 \<and> primary_fixed 6066 \<and> primary_fixed 6067 \<and>
   primary_fixed 6070 \<and> primary_fixed 6072 \<and> primary_fixed 6075 \<and>
   primary_fixed 6077 \<and> primary_fixed 6079 \<and> primary_fixed 6080 \<and>
   primary_fixed 6084 \<and> primary_fixed 6087 \<and> primary_fixed 6088 \<and>
   primary_fixed 6092 \<and> primary_fixed 6093 \<and> primary_fixed 6097 \<and>
   primary_fixed 6102 \<and> primary_fixed 6107 \<and> primary_fixed 6108 \<and>
   primary_fixed 6112 \<and> primary_fixed 6116 \<and> primary_fixed 6118 \<and>
   primary_fixed 6120 \<and> primary_fixed 6121 \<and> primary_fixed 6125 \<and>
   primary_fixed 6128 \<and> primary_fixed 6131 \<and> primary_fixed 6136 \<and>
   primary_fixed 6140 \<and> primary_fixed 6141 \<and> primary_fixed 6143 \<and>
   primary_fixed 6145"
  using fixed_facts [OF ts_primary_state_ids_40_ok(3) primary_runs_mem(41)] by simp

lemma primary_fixed_41:
  "primary_fixed 6151 \<and> primary_fixed 6153 \<and> primary_fixed 6158 \<and>
   primary_fixed 6163 \<and> primary_fixed 6169 \<and> primary_fixed 6180 \<and>
   primary_fixed 6186 \<and> primary_fixed 6188 \<and> primary_fixed 6190 \<and>
   primary_fixed 6194 \<and> primary_fixed 6197 \<and> primary_fixed 6198 \<and>
   primary_fixed 6200 \<and> primary_fixed 6201 \<and> primary_fixed 6205 \<and>
   primary_fixed 6206 \<and> primary_fixed 6210 \<and> primary_fixed 6213 \<and>
   primary_fixed 6215 \<and> primary_fixed 6218 \<and> primary_fixed 6220 \<and>
   primary_fixed 6222 \<and> primary_fixed 6226 \<and> primary_fixed 6229 \<and>
   primary_fixed 6231 \<and> primary_fixed 6238 \<and> primary_fixed 6241 \<and>
   primary_fixed 6244 \<and> primary_fixed 6248 \<and> primary_fixed 6249 \<and>
   primary_fixed 6251 \<and> primary_fixed 6252 \<and> primary_fixed 6253 \<and>
   primary_fixed 6257 \<and> primary_fixed 6260 \<and> primary_fixed 6262 \<and>
   primary_fixed 6268 \<and> primary_fixed 6271 \<and> primary_fixed 6272 \<and>
   primary_fixed 6273 \<and> primary_fixed 6275 \<and> primary_fixed 6276 \<and>
   primary_fixed 6281 \<and> primary_fixed 6284 \<and> primary_fixed 6286 \<and>
   primary_fixed 6287 \<and> primary_fixed 6297"
  using fixed_facts [OF ts_primary_state_ids_41_ok(3) primary_runs_mem(42)] by simp

lemma primary_fixed_42:
  "primary_fixed 6300 \<and> primary_fixed 6303 \<and> primary_fixed 6308 \<and>
   primary_fixed 6314 \<and> primary_fixed 6317 \<and> primary_fixed 6320 \<and>
   primary_fixed 6323 \<and> primary_fixed 6324 \<and> primary_fixed 6328 \<and>
   primary_fixed 6329 \<and> primary_fixed 6331 \<and> primary_fixed 6332 \<and>
   primary_fixed 6333 \<and> primary_fixed 6336 \<and> primary_fixed 6337 \<and>
   primary_fixed 6340 \<and> primary_fixed 6341 \<and> primary_fixed 6342 \<and>
   primary_fixed 6345 \<and> primary_fixed 6346 \<and> primary_fixed 6349 \<and>
   primary_fixed 6350 \<and> primary_fixed 6351 \<and> primary_fixed 6355 \<and>
   primary_fixed 6358 \<and> primary_fixed 6359 \<and> primary_fixed 6363 \<and>
   primary_fixed 6364 \<and> primary_fixed 6366 \<and> primary_fixed 6367 \<and>
   primary_fixed 6372 \<and> primary_fixed 6375 \<and> primary_fixed 6377 \<and>
   primary_fixed 6380 \<and> primary_fixed 6381 \<and> primary_fixed 6384 \<and>
   primary_fixed 6386 \<and> primary_fixed 6388 \<and> primary_fixed 6389 \<and>
   primary_fixed 6393 \<and> primary_fixed 6399 \<and> primary_fixed 6407 \<and>
   primary_fixed 6409 \<and> primary_fixed 6411 \<and> primary_fixed 6413 \<and>
   primary_fixed 6419 \<and> primary_fixed 6422 \<and> primary_fixed 6431 \<and>
   primary_fixed 6434 \<and> primary_fixed 6436 \<and> primary_fixed 6437 \<and>
   primary_fixed 6442 \<and> primary_fixed 6448"
  using fixed_facts [OF ts_primary_state_ids_42_ok(3) primary_runs_mem(43)] by simp

lemma primary_fixed_43:
  "primary_fixed 6452 \<and> primary_fixed 6453 \<and> primary_fixed 6454 \<and>
   primary_fixed 6455 \<and> primary_fixed 6456 \<and> primary_fixed 6457 \<and>
   primary_fixed 6458 \<and> primary_fixed 6459 \<and> primary_fixed 6460"
  using fixed_facts [OF ts_primary_state_ids_43_ok(3) primary_runs_mem(44)] by simp

lemma primary_fixed_44:
  "primary_fixed 6723 \<and> primary_fixed 6724 \<and> primary_fixed 6725 \<and>
   primary_fixed 6726 \<and> primary_fixed 6729 \<and> primary_fixed 6730 \<and>
   primary_fixed 6731 \<and> primary_fixed 6732 \<and> primary_fixed 6734 \<and>
   primary_fixed 6735 \<and> primary_fixed 6738 \<and> primary_fixed 6739 \<and>
   primary_fixed 6742 \<and> primary_fixed 6744 \<and> primary_fixed 6748 \<and>
   primary_fixed 6749"
  using fixed_facts [OF ts_primary_state_ids_44_ok(3) primary_runs_mem(45)] by simp

lemma primary_fixed_45:
  "primary_fixed 6750 \<and> primary_fixed 6753 \<and> primary_fixed 6758 \<and>
   primary_fixed 6759 \<and> primary_fixed 6760 \<and> primary_fixed 6762 \<and>
   primary_fixed 6763 \<and> primary_fixed 6764 \<and> primary_fixed 6765 \<and>
   primary_fixed 6766 \<and> primary_fixed 6767 \<and> primary_fixed 6768 \<and>
   primary_fixed 6769 \<and> primary_fixed 6771 \<and> primary_fixed 6773 \<and>
   primary_fixed 6774 \<and> primary_fixed 6775 \<and> primary_fixed 6776 \<and>
   primary_fixed 6777 \<and> primary_fixed 6778 \<and> primary_fixed 6780 \<and>
   primary_fixed 6781 \<and> primary_fixed 6782 \<and> primary_fixed 6783 \<and>
   primary_fixed 6787 \<and> primary_fixed 6788 \<and> primary_fixed 6789 \<and>
   primary_fixed 6790 \<and> primary_fixed 6791 \<and> primary_fixed 6793 \<and>
   primary_fixed 6794 \<and> primary_fixed 6795 \<and> primary_fixed 6796 \<and>
   primary_fixed 6797 \<and> primary_fixed 6798 \<and> primary_fixed 6799 \<and>
   primary_fixed 6800 \<and> primary_fixed 6803 \<and> primary_fixed 6808 \<and>
   primary_fixed 6809 \<and> primary_fixed 6810 \<and> primary_fixed 6811 \<and>
   primary_fixed 6812 \<and> primary_fixed 6813 \<and> primary_fixed 6814 \<and>
   primary_fixed 6815 \<and> primary_fixed 6817 \<and> primary_fixed 6818 \<and>
   primary_fixed 6820 \<and> primary_fixed 6827 \<and> primary_fixed 6865 \<and>
   primary_fixed 6866 \<and> primary_fixed 6870 \<and> primary_fixed 6888"
  using fixed_facts [OF ts_primary_state_ids_45_ok(3) primary_runs_mem(46)] by simp

lemma primary_fixed_46:
  "primary_fixed 6913 \<and> primary_fixed 6935 \<and> primary_fixed 6936 \<and>
   primary_fixed 6937 \<and> primary_fixed 6940 \<and> primary_fixed 6945 \<and>
   primary_fixed 6946 \<and> primary_fixed 6947 \<and> primary_fixed 6948 \<and>
   primary_fixed 6949 \<and> primary_fixed 6950 \<and> primary_fixed 6951 \<and>
   primary_fixed 6952 \<and> primary_fixed 6953 \<and> primary_fixed 6957 \<and>
   primary_fixed 6960 \<and> primary_fixed 6962 \<and> primary_fixed 6964 \<and>
   primary_fixed 6965 \<and> primary_fixed 6966 \<and> primary_fixed 6967 \<and>
   primary_fixed 6973 \<and> primary_fixed 6975 \<and> primary_fixed 6992 \<and>
   primary_fixed 6995 \<and> primary_fixed 6996 \<and> primary_fixed 6997 \<and>
   primary_fixed 6998 \<and> primary_fixed 6999 \<and> primary_fixed 7002 \<and>
   primary_fixed 7005 \<and> primary_fixed 7006 \<and> primary_fixed 7007 \<and>
   primary_fixed 7009 \<and> primary_fixed 7010 \<and> primary_fixed 7011 \<and>
   primary_fixed 7012 \<and> primary_fixed 7013 \<and> primary_fixed 7015 \<and>
   primary_fixed 7017 \<and> primary_fixed 7027 \<and> primary_fixed 7044"
  using fixed_facts [OF ts_primary_state_ids_46_ok(3) primary_runs_mem(47)] by simp

lemma primary_fixed_47:
  "primary_fixed 7061 \<and> primary_fixed 7062 \<and> primary_fixed 7063 \<and>
   primary_fixed 7064 \<and> primary_fixed 7065 \<and> primary_fixed 7066 \<and>
   primary_fixed 7156"
  using fixed_facts [OF ts_primary_state_ids_47_ok(3) primary_runs_mem(48)] by simp

lemma primary_fixed_48:
  "primary_fixed 7282"
  using fixed_facts [OF ts_primary_state_ids_48_ok(3) primary_runs_mem(49)] by simp

lemma primary_fixed_49:
  "primary_fixed 7353 \<and> primary_fixed 7383 \<and> primary_fixed 7482"
  using fixed_facts [OF ts_primary_state_ids_49_ok(3) primary_runs_mem(50)] by simp

lemma primary_fixed_50:
  "primary_fixed 7515 \<and> primary_fixed 7517 \<and> primary_fixed 7523 \<and>
   primary_fixed 7526 \<and> primary_fixed 7533 \<and> primary_fixed 7534 \<and>
   primary_fixed 7536 \<and> primary_fixed 7539 \<and> primary_fixed 7549 \<and>
   primary_fixed 7563 \<and> primary_fixed 7582 \<and> primary_fixed 7586 \<and>
   primary_fixed 7587 \<and> primary_fixed 7596 \<and> primary_fixed 7646"
  using fixed_facts [OF ts_primary_state_ids_50_ok(3) primary_runs_mem(51)] by simp

lemma primary_fixed_51:
  "primary_fixed 7721 \<and> primary_fixed 7722 \<and> primary_fixed 7742 \<and>
   primary_fixed 7751 \<and> primary_fixed 7752 \<and> primary_fixed 7781 \<and>
   primary_fixed 7784"
  using fixed_facts [OF ts_primary_state_ids_51_ok(3) primary_runs_mem(52)] by simp

lemma primary_fixed_52:
  "primary_fixed 7822 \<and> primary_fixed 7823 \<and> primary_fixed 7824 \<and>
   primary_fixed 7825 \<and> primary_fixed 7827 \<and> primary_fixed 7829 \<and>
   primary_fixed 7847 \<and> primary_fixed 7848 \<and> primary_fixed 7849 \<and>
   primary_fixed 7851 \<and> primary_fixed 7852 \<and> primary_fixed 7853 \<and>
   primary_fixed 7855 \<and> primary_fixed 7857 \<and> primary_fixed 7861 \<and>
   primary_fixed 7865 \<and> primary_fixed 7878 \<and> primary_fixed 7881 \<and>
   primary_fixed 7882 \<and> primary_fixed 7884 \<and> primary_fixed 7886 \<and>
   primary_fixed 7890 \<and> primary_fixed 7891 \<and> primary_fixed 7892 \<and>
   primary_fixed 7895 \<and> primary_fixed 7897 \<and> primary_fixed 7899 \<and>
   primary_fixed 7900 \<and> primary_fixed 7902 \<and> primary_fixed 7904 \<and>
   primary_fixed 7909 \<and> primary_fixed 7910 \<and> primary_fixed 7922 \<and>
   primary_fixed 7926 \<and> primary_fixed 7929 \<and> primary_fixed 7931 \<and>
   primary_fixed 7933"
  using fixed_facts [OF ts_primary_state_ids_52_ok(3) primary_runs_mem(53)] by simp

lemma primary_fixed_53:
  "primary_fixed 7953 \<and> primary_fixed 7956 \<and> primary_fixed 7959 \<and>
   primary_fixed 7964 \<and> primary_fixed 7966 \<and> primary_fixed 7967 \<and>
   primary_fixed 7968 \<and> primary_fixed 7969 \<and> primary_fixed 7970 \<and>
   primary_fixed 7975 \<and> primary_fixed 7976 \<and> primary_fixed 7977 \<and>
   primary_fixed 7979 \<and> primary_fixed 7983 \<and> primary_fixed 7996 \<and>
   primary_fixed 7997 \<and> primary_fixed 7999 \<and> primary_fixed 8000 \<and>
   primary_fixed 8002 \<and> primary_fixed 8010 \<and> primary_fixed 8011 \<and>
   primary_fixed 8012 \<and> primary_fixed 8013 \<and> primary_fixed 8014 \<and>
   primary_fixed 8015 \<and> primary_fixed 8016 \<and> primary_fixed 8017 \<and>
   primary_fixed 8019 \<and> primary_fixed 8030 \<and> primary_fixed 8031 \<and>
   primary_fixed 8032 \<and> primary_fixed 8033 \<and> primary_fixed 8034 \<and>
   primary_fixed 8035 \<and> primary_fixed 8044 \<and> primary_fixed 8045 \<and>
   primary_fixed 8046 \<and> primary_fixed 8048 \<and> primary_fixed 8055 \<and>
   primary_fixed 8061 \<and> primary_fixed 8062 \<and> primary_fixed 8063 \<and>
   primary_fixed 8064 \<and> primary_fixed 8065 \<and> primary_fixed 8079 \<and>
   primary_fixed 8080 \<and> primary_fixed 8086 \<and> primary_fixed 8093 \<and>
   primary_fixed 8097 \<and> primary_fixed 8098"
  using fixed_facts [OF ts_primary_state_ids_53_ok(3) primary_runs_mem(54)] by simp

lemma primary_fixed_54:
  "primary_fixed 8105 \<and> primary_fixed 8107 \<and> primary_fixed 8108 \<and>
   primary_fixed 8111 \<and> primary_fixed 8112 \<and> primary_fixed 8113 \<and>
   primary_fixed 8114 \<and> primary_fixed 8123 \<and> primary_fixed 8124 \<and>
   primary_fixed 8125 \<and> primary_fixed 8126 \<and> primary_fixed 8127 \<and>
   primary_fixed 8128 \<and> primary_fixed 8129 \<and> primary_fixed 8130 \<and>
   primary_fixed 8131 \<and> primary_fixed 8132 \<and> primary_fixed 8133 \<and>
   primary_fixed 8134 \<and> primary_fixed 8135 \<and> primary_fixed 8136 \<and>
   primary_fixed 8137 \<and> primary_fixed 8138 \<and> primary_fixed 8139 \<and>
   primary_fixed 8140 \<and> primary_fixed 8141 \<and> primary_fixed 8142 \<and>
   primary_fixed 8143 \<and> primary_fixed 8144 \<and> primary_fixed 8145 \<and>
   primary_fixed 8155 \<and> primary_fixed 8170 \<and> primary_fixed 8173 \<and>
   primary_fixed 8175 \<and> primary_fixed 8180 \<and> primary_fixed 8188 \<and>
   primary_fixed 8197 \<and> primary_fixed 8198 \<and> primary_fixed 8199 \<and>
   primary_fixed 8200 \<and> primary_fixed 8202 \<and> primary_fixed 8206 \<and>
   primary_fixed 8207 \<and> primary_fixed 8208 \<and> primary_fixed 8211 \<and>
   primary_fixed 8217 \<and> primary_fixed 8233 \<and> primary_fixed 8234 \<and>
   primary_fixed 8240 \<and> primary_fixed 8242 \<and> primary_fixed 8243 \<and>
   primary_fixed 8244 \<and> primary_fixed 8245 \<and> primary_fixed 8246 \<and>
   primary_fixed 8247"
  using fixed_facts [OF ts_primary_state_ids_54_ok(3) primary_runs_mem(55)] by simp

lemma primary_fixed_55:
  "primary_fixed 8252 \<and> primary_fixed 8253 \<and> primary_fixed 8265 \<and>
   primary_fixed 8266 \<and> primary_fixed 8271 \<and> primary_fixed 8299 \<and>
   primary_fixed 8303 \<and> primary_fixed 8305 \<and> primary_fixed 8307 \<and>
   primary_fixed 8309 \<and> primary_fixed 8316 \<and> primary_fixed 8329 \<and>
   primary_fixed 8330 \<and> primary_fixed 8331 \<and> primary_fixed 8332 \<and>
   primary_fixed 8333 \<and> primary_fixed 8334 \<and> primary_fixed 8335 \<and>
   primary_fixed 8336 \<and> primary_fixed 8338 \<and> primary_fixed 8339 \<and>
   primary_fixed 8341 \<and> primary_fixed 8342 \<and> primary_fixed 8343 \<and>
   primary_fixed 8344 \<and> primary_fixed 8351"
  using fixed_facts [OF ts_primary_state_ids_55_ok(3) primary_runs_mem(56)] by simp

lemma primary_fixed_56:
  "primary_fixed 8481 \<and> primary_fixed 8482 \<and> primary_fixed 8483 \<and>
   primary_fixed 8484 \<and> primary_fixed 8485 \<and> primary_fixed 8486 \<and>
   primary_fixed 8489 \<and> primary_fixed 8548"
  using fixed_facts [OF ts_primary_state_ids_56_ok(3) primary_runs_mem(57)] by simp

lemma primary_fixed_57:
  "primary_fixed 8568 \<and> primary_fixed 8569 \<and> primary_fixed 8578 \<and>
   primary_fixed 8588 \<and> primary_fixed 8589 \<and> primary_fixed 8617 \<and>
   primary_fixed 8618 \<and> primary_fixed 8619 \<and> primary_fixed 8620 \<and>
   primary_fixed 8621 \<and> primary_fixed 8622 \<and> primary_fixed 8624 \<and>
   primary_fixed 8625 \<and> primary_fixed 8626 \<and> primary_fixed 8633 \<and>
   primary_fixed 8634 \<and> primary_fixed 8635 \<and> primary_fixed 8636 \<and>
   primary_fixed 8637 \<and> primary_fixed 8639 \<and> primary_fixed 8640 \<and>
   primary_fixed 8642 \<and> primary_fixed 8643 \<and> primary_fixed 8644 \<and>
   primary_fixed 8645 \<and> primary_fixed 8646 \<and> primary_fixed 8647 \<and>
   primary_fixed 8649 \<and> primary_fixed 8650 \<and> primary_fixed 8651 \<and>
   primary_fixed 8653 \<and> primary_fixed 8658 \<and> primary_fixed 8659 \<and>
   primary_fixed 8660 \<and> primary_fixed 8665 \<and> primary_fixed 8667 \<and>
   primary_fixed 8668 \<and> primary_fixed 8669 \<and> primary_fixed 8670 \<and>
   primary_fixed 8671 \<and> primary_fixed 8672 \<and> primary_fixed 8673 \<and>
   primary_fixed 8674 \<and> primary_fixed 8675 \<and> primary_fixed 8677 \<and>
   primary_fixed 8679 \<and> primary_fixed 8680 \<and> primary_fixed 8681 \<and>
   primary_fixed 8682 \<and> primary_fixed 8683 \<and> primary_fixed 8686 \<and>
   primary_fixed 8687 \<and> primary_fixed 8688 \<and> primary_fixed 8690 \<and>
   primary_fixed 8697 \<and> primary_fixed 8698 \<and> primary_fixed 8699"
  using fixed_facts [OF ts_primary_state_ids_57_ok(3) primary_runs_mem(58)] by simp

lemma primary_fixed_58:
  "primary_fixed 8700 \<and> primary_fixed 8701 \<and> primary_fixed 8702 \<and>
   primary_fixed 8703 \<and> primary_fixed 8704 \<and> primary_fixed 8705 \<and>
   primary_fixed 8706 \<and> primary_fixed 8707 \<and> primary_fixed 8708 \<and>
   primary_fixed 8709 \<and> primary_fixed 8710 \<and> primary_fixed 8711 \<and>
   primary_fixed 8712 \<and> primary_fixed 8713 \<and> primary_fixed 8714 \<and>
   primary_fixed 8715 \<and> primary_fixed 8716 \<and> primary_fixed 8717 \<and>
   primary_fixed 8718 \<and> primary_fixed 8719 \<and> primary_fixed 8720 \<and>
   primary_fixed 8721 \<and> primary_fixed 8722 \<and> primary_fixed 8723 \<and>
   primary_fixed 8724 \<and> primary_fixed 8725 \<and> primary_fixed 8726 \<and>
   primary_fixed 8727 \<and> primary_fixed 8728 \<and> primary_fixed 8729 \<and>
   primary_fixed 8730 \<and> primary_fixed 8731 \<and> primary_fixed 8732 \<and>
   primary_fixed 8733 \<and> primary_fixed 8734 \<and> primary_fixed 8735 \<and>
   primary_fixed 8736 \<and> primary_fixed 8737 \<and> primary_fixed 8738 \<and>
   primary_fixed 8739 \<and> primary_fixed 8740 \<and> primary_fixed 8741 \<and>
   primary_fixed 8742 \<and> primary_fixed 8743 \<and> primary_fixed 8744 \<and>
   primary_fixed 8745 \<and> primary_fixed 8746 \<and> primary_fixed 8747 \<and>
   primary_fixed 8748 \<and> primary_fixed 8749 \<and> primary_fixed 8750 \<and>
   primary_fixed 8751 \<and> primary_fixed 8752 \<and> primary_fixed 8753 \<and>
   primary_fixed 8754 \<and> primary_fixed 8755 \<and> primary_fixed 8756 \<and>
   primary_fixed 8757 \<and> primary_fixed 8758 \<and> primary_fixed 8759 \<and>
   primary_fixed 8760 \<and> primary_fixed 8761 \<and> primary_fixed 8762 \<and>
   primary_fixed 8763 \<and> primary_fixed 8764 \<and> primary_fixed 8766 \<and>
   primary_fixed 8767 \<and> primary_fixed 8768 \<and> primary_fixed 8769 \<and>
   primary_fixed 8770 \<and> primary_fixed 8771 \<and> primary_fixed 8772 \<and>
   primary_fixed 8773 \<and> primary_fixed 8774 \<and> primary_fixed 8775 \<and>
   primary_fixed 8776 \<and> primary_fixed 8777 \<and> primary_fixed 8778 \<and>
   primary_fixed 8779 \<and> primary_fixed 8780 \<and> primary_fixed 8781 \<and>
   primary_fixed 8782 \<and> primary_fixed 8783 \<and> primary_fixed 8784 \<and>
   primary_fixed 8785 \<and> primary_fixed 8786 \<and> primary_fixed 8787 \<and>
   primary_fixed 8788 \<and> primary_fixed 8789 \<and> primary_fixed 8790 \<and>
   primary_fixed 8791 \<and> primary_fixed 8792 \<and> primary_fixed 8793 \<and>
   primary_fixed 8794 \<and> primary_fixed 8795 \<and> primary_fixed 8796 \<and>
   primary_fixed 8797 \<and> primary_fixed 8798 \<and> primary_fixed 8799 \<and>
   primary_fixed 8800 \<and> primary_fixed 8801 \<and> primary_fixed 8802 \<and>
   primary_fixed 8803 \<and> primary_fixed 8804 \<and> primary_fixed 8805 \<and>
   primary_fixed 8806 \<and> primary_fixed 8807 \<and> primary_fixed 8808 \<and>
   primary_fixed 8809 \<and> primary_fixed 8810 \<and> primary_fixed 8811 \<and>
   primary_fixed 8812 \<and> primary_fixed 8813 \<and> primary_fixed 8814 \<and>
   primary_fixed 8815 \<and> primary_fixed 8816 \<and> primary_fixed 8817 \<and>
   primary_fixed 8818 \<and> primary_fixed 8819 \<and> primary_fixed 8820 \<and>
   primary_fixed 8821 \<and> primary_fixed 8822 \<and> primary_fixed 8823 \<and>
   primary_fixed 8824 \<and> primary_fixed 8825 \<and> primary_fixed 8844 \<and>
   primary_fixed 8846 \<and> primary_fixed 8847 \<and> primary_fixed 8849"
  using fixed_facts [OF ts_primary_state_ids_58_ok(3) primary_runs_mem(59)] by simp

lemma primary_fixed_59:
  "primary_fixed 8850 \<and> primary_fixed 8851 \<and> primary_fixed 8852 \<and>
   primary_fixed 8853 \<and> primary_fixed 8854 \<and> primary_fixed 8855 \<and>
   primary_fixed 8856 \<and> primary_fixed 8857 \<and> primary_fixed 8858 \<and>
   primary_fixed 8859 \<and> primary_fixed 8860 \<and> primary_fixed 8861 \<and>
   primary_fixed 8862 \<and> primary_fixed 8863 \<and> primary_fixed 8864 \<and>
   primary_fixed 8865 \<and> primary_fixed 8866 \<and> primary_fixed 8867 \<and>
   primary_fixed 8868 \<and> primary_fixed 8869 \<and> primary_fixed 8870 \<and>
   primary_fixed 8871 \<and> primary_fixed 8872 \<and> primary_fixed 8873 \<and>
   primary_fixed 8874 \<and> primary_fixed 8875 \<and> primary_fixed 8876 \<and>
   primary_fixed 8877 \<and> primary_fixed 8878 \<and> primary_fixed 8879 \<and>
   primary_fixed 8880 \<and> primary_fixed 8881 \<and> primary_fixed 8882 \<and>
   primary_fixed 8883 \<and> primary_fixed 8884 \<and> primary_fixed 8885"
  using fixed_facts [OF ts_primary_state_ids_59_ok(3) primary_runs_mem(60)] by simp

lemma primary_fixed_60:
  "primary_fixed 9060"
  using fixed_facts [OF ts_primary_state_ids_60_ok(3) primary_runs_mem(61)] by simp

lemma primary_fixed_63:
  "primary_fixed 9455 \<and> primary_fixed 9464 \<and> primary_fixed 9466 \<and>
   primary_fixed 9480 \<and> primary_fixed 9484 \<and> primary_fixed 9494 \<and>
   primary_fixed 9550 \<and> primary_fixed 9551 \<and> primary_fixed 9552 \<and>
   primary_fixed 9555 \<and> primary_fixed 9556 \<and> primary_fixed 9558 \<and>
   primary_fixed 9563 \<and> primary_fixed 9565 \<and> primary_fixed 9586"
  using fixed_facts [OF ts_primary_state_ids_63_ok(3) primary_runs_mem(64)] by simp

lemma primary_fixed_64:
  "primary_fixed 9605 \<and> primary_fixed 9615 \<and> primary_fixed 9623 \<and>
   primary_fixed 9629 \<and> primary_fixed 9632 \<and> primary_fixed 9634 \<and>
   primary_fixed 9636 \<and> primary_fixed 9640 \<and> primary_fixed 9641 \<and>
   primary_fixed 9642 \<and> primary_fixed 9648 \<and> primary_fixed 9649 \<and>
   primary_fixed 9652 \<and> primary_fixed 9653 \<and> primary_fixed 9654 \<and>
   primary_fixed 9655 \<and> primary_fixed 9656 \<and> primary_fixed 9658 \<and>
   primary_fixed 9659 \<and> primary_fixed 9660 \<and> primary_fixed 9662 \<and>
   primary_fixed 9664 \<and> primary_fixed 9669 \<and> primary_fixed 9670 \<and>
   primary_fixed 9672 \<and> primary_fixed 9677 \<and> primary_fixed 9681 \<and>
   primary_fixed 9685 \<and> primary_fixed 9691 \<and> primary_fixed 9696 \<and>
   primary_fixed 9698 \<and> primary_fixed 9700 \<and> primary_fixed 9704 \<and>
   primary_fixed 9707 \<and> primary_fixed 9712 \<and> primary_fixed 9726 \<and>
   primary_fixed 9727 \<and> primary_fixed 9728 \<and> primary_fixed 9731 \<and>
   primary_fixed 9733 \<and> primary_fixed 9737 \<and> primary_fixed 9740 \<and>
   primary_fixed 9745 \<and> primary_fixed 9746 \<and> primary_fixed 9747"
  using fixed_facts [OF ts_primary_state_ids_64_ok(3) primary_runs_mem(65)] by simp

lemma primary_fixed_65:
  "primary_fixed 9753 \<and> primary_fixed 9766 \<and> primary_fixed 9767 \<and>
   primary_fixed 9769 \<and> primary_fixed 9773 \<and> primary_fixed 9790 \<and>
   primary_fixed 9792 \<and> primary_fixed 9798 \<and> primary_fixed 9809 \<and>
   primary_fixed 9812 \<and> primary_fixed 9815 \<and> primary_fixed 9834 \<and>
   primary_fixed 9835 \<and> primary_fixed 9859 \<and> primary_fixed 9861 \<and>
   primary_fixed 9864 \<and> primary_fixed 9866 \<and> primary_fixed 9872 \<and>
   primary_fixed 9875 \<and> primary_fixed 9878 \<and> primary_fixed 9880 \<and>
   primary_fixed 9883"
  using fixed_facts [OF ts_primary_state_ids_65_ok(3) primary_runs_mem(66)] by simp

lemma primary_fixed_66:
  "primary_fixed 9904 \<and> primary_fixed 9908 \<and> primary_fixed 9918 \<and>
   primary_fixed 9948 \<and> primary_fixed 9964 \<and> primary_fixed 9968 \<and>
   primary_fixed 9978 \<and> primary_fixed 9981 \<and> primary_fixed 9984 \<and>
   primary_fixed 9992 \<and> primary_fixed 10013 \<and> primary_fixed 10018 \<and>
   primary_fixed 10036 \<and> primary_fixed 10039 \<and> primary_fixed 10042"
  using fixed_facts [OF ts_primary_state_ids_66_ok(3) primary_runs_mem(67)] by simp

lemma primary_fixed_67:
  "primary_fixed 10059 \<and> primary_fixed 10096 \<and> primary_fixed 10097 \<and>
   primary_fixed 10101 \<and> primary_fixed 10103 \<and> primary_fixed 10105 \<and>
   primary_fixed 10107 \<and> primary_fixed 10109 \<and> primary_fixed 10110 \<and>
   primary_fixed 10112 \<and> primary_fixed 10113 \<and> primary_fixed 10114 \<and>
   primary_fixed 10116 \<and> primary_fixed 10117 \<and> primary_fixed 10118 \<and>
   primary_fixed 10119 \<and> primary_fixed 10120 \<and> primary_fixed 10121 \<and>
   primary_fixed 10122 \<and> primary_fixed 10124 \<and> primary_fixed 10131 \<and>
   primary_fixed 10132 \<and> primary_fixed 10134 \<and> primary_fixed 10135 \<and>
   primary_fixed 10140 \<and> primary_fixed 10141 \<and> primary_fixed 10143 \<and>
   primary_fixed 10146 \<and> primary_fixed 10152 \<and> primary_fixed 10160 \<and>
   primary_fixed 10161 \<and> primary_fixed 10165 \<and> primary_fixed 10167 \<and>
   primary_fixed 10174 \<and> primary_fixed 10175 \<and> primary_fixed 10176 \<and>
   primary_fixed 10180 \<and> primary_fixed 10182 \<and> primary_fixed 10184 \<and>
   primary_fixed 10185 \<and> primary_fixed 10186 \<and> primary_fixed 10188 \<and>
   primary_fixed 10190 \<and> primary_fixed 10191 \<and> primary_fixed 10192 \<and>
   primary_fixed 10193 \<and> primary_fixed 10194 \<and> primary_fixed 10195 \<and>
   primary_fixed 10196 \<and> primary_fixed 10199"
  using fixed_facts [OF ts_primary_state_ids_67_ok(3) primary_runs_mem(68)] by simp

lemma primary_fixed_68:
  "primary_fixed 10200 \<and> primary_fixed 10203 \<and> primary_fixed 10204 \<and>
   primary_fixed 10205 \<and> primary_fixed 10206 \<and> primary_fixed 10207 \<and>
   primary_fixed 10208 \<and> primary_fixed 10209 \<and> primary_fixed 10210 \<and>
   primary_fixed 10211 \<and> primary_fixed 10212 \<and> primary_fixed 10213 \<and>
   primary_fixed 10214 \<and> primary_fixed 10215 \<and> primary_fixed 10216 \<and>
   primary_fixed 10217 \<and> primary_fixed 10218 \<and> primary_fixed 10220 \<and>
   primary_fixed 10222 \<and> primary_fixed 10223 \<and> primary_fixed 10224 \<and>
   primary_fixed 10227 \<and> primary_fixed 10228 \<and> primary_fixed 10231 \<and>
   primary_fixed 10233 \<and> primary_fixed 10242 \<and> primary_fixed 10243 \<and>
   primary_fixed 10244 \<and> primary_fixed 10245 \<and> primary_fixed 10246 \<and>
   primary_fixed 10247 \<and> primary_fixed 10248 \<and> primary_fixed 10249 \<and>
   primary_fixed 10250 \<and> primary_fixed 10251 \<and> primary_fixed 10255 \<and>
   primary_fixed 10257 \<and> primary_fixed 10259 \<and> primary_fixed 10260 \<and>
   primary_fixed 10261 \<and> primary_fixed 10263 \<and> primary_fixed 10267 \<and>
   primary_fixed 10269 \<and> primary_fixed 10270 \<and> primary_fixed 10271 \<and>
   primary_fixed 10272 \<and> primary_fixed 10273 \<and> primary_fixed 10274 \<and>
   primary_fixed 10275 \<and> primary_fixed 10276 \<and> primary_fixed 10277 \<and>
   primary_fixed 10279 \<and> primary_fixed 10280 \<and> primary_fixed 10281 \<and>
   primary_fixed 10282 \<and> primary_fixed 10285 \<and> primary_fixed 10286 \<and>
   primary_fixed 10289 \<and> primary_fixed 10290 \<and> primary_fixed 10291 \<and>
   primary_fixed 10293 \<and> primary_fixed 10296 \<and> primary_fixed 10297 \<and>
   primary_fixed 10298 \<and> primary_fixed 10305 \<and> primary_fixed 10306 \<and>
   primary_fixed 10307 \<and> primary_fixed 10308 \<and> primary_fixed 10310 \<and>
   primary_fixed 10320 \<and> primary_fixed 10322 \<and> primary_fixed 10323 \<and>
   primary_fixed 10324 \<and> primary_fixed 10325 \<and> primary_fixed 10326 \<and>
   primary_fixed 10327 \<and> primary_fixed 10328 \<and> primary_fixed 10329 \<and>
   primary_fixed 10330 \<and> primary_fixed 10331 \<and> primary_fixed 10332 \<and>
   primary_fixed 10333 \<and> primary_fixed 10334 \<and> primary_fixed 10335 \<and>
   primary_fixed 10336 \<and> primary_fixed 10337 \<and> primary_fixed 10338 \<and>
   primary_fixed 10339 \<and> primary_fixed 10348"
  using fixed_facts [OF ts_primary_state_ids_68_ok(3) primary_runs_mem(69)] by simp

lemma primary_fixed_69:
  "primary_fixed 10351 \<and> primary_fixed 10368 \<and> primary_fixed 10369 \<and>
   primary_fixed 10370 \<and> primary_fixed 10371 \<and> primary_fixed 10372 \<and>
   primary_fixed 10381 \<and> primary_fixed 10384 \<and> primary_fixed 10385 \<and>
   primary_fixed 10386 \<and> primary_fixed 10387 \<and> primary_fixed 10388 \<and>
   primary_fixed 10389 \<and> primary_fixed 10390 \<and> primary_fixed 10391 \<and>
   primary_fixed 10392 \<and> primary_fixed 10393 \<and> primary_fixed 10394 \<and>
   primary_fixed 10395 \<and> primary_fixed 10396 \<and> primary_fixed 10397 \<and>
   primary_fixed 10398 \<and> primary_fixed 10399 \<and> primary_fixed 10400 \<and>
   primary_fixed 10401 \<and> primary_fixed 10402 \<and> primary_fixed 10403 \<and>
   primary_fixed 10405 \<and> primary_fixed 10406 \<and> primary_fixed 10407 \<and>
   primary_fixed 10408 \<and> primary_fixed 10409 \<and> primary_fixed 10411 \<and>
   primary_fixed 10412 \<and> primary_fixed 10415 \<and> primary_fixed 10428 \<and>
   primary_fixed 10432 \<and> primary_fixed 10435 \<and> primary_fixed 10453 \<and>
   primary_fixed 10454 \<and> primary_fixed 10469 \<and> primary_fixed 10473 \<and>
   primary_fixed 10474 \<and> primary_fixed 10478 \<and> primary_fixed 10495"
  using fixed_facts [OF ts_primary_state_ids_69_ok(3) primary_runs_mem(70)] by simp

lemma primary_fixed_70:
  "primary_fixed 10521 \<and> primary_fixed 10531 \<and> primary_fixed 10534 \<and>
   primary_fixed 10536 \<and> primary_fixed 10544 \<and> primary_fixed 10552 \<and>
   primary_fixed 10590"
  using fixed_facts [OF ts_primary_state_ids_70_ok(3) primary_runs_mem(71)] by simp

lemma primary_fixed_71:
  "primary_fixed 10666 \<and> primary_fixed 10669 \<and> primary_fixed 10673 \<and>
   primary_fixed 10696 \<and> primary_fixed 10718 \<and> primary_fixed 10719 \<and>
   primary_fixed 10726 \<and> primary_fixed 10736 \<and> primary_fixed 10752 \<and>
   primary_fixed 10762 \<and> primary_fixed 10766 \<and> primary_fixed 10767 \<and>
   primary_fixed 10783 \<and> primary_fixed 10796 \<and> primary_fixed 10797"
  using fixed_facts [OF ts_primary_state_ids_71_ok(3) primary_runs_mem(72)] by simp

lemma primary_fixed_72:
  "primary_fixed 10801 \<and> primary_fixed 10835 \<and> primary_fixed 10836 \<and>
   primary_fixed 10837 \<and> primary_fixed 10849 \<and> primary_fixed 10860 \<and>
   primary_fixed 10939 \<and> primary_fixed 10940 \<and> primary_fixed 10941 \<and>
   primary_fixed 10942 \<and> primary_fixed 10943 \<and> primary_fixed 10944 \<and>
   primary_fixed 10946 \<and> primary_fixed 10947 \<and> primary_fixed 10948 \<and>
   primary_fixed 10949"
  using fixed_facts [OF ts_primary_state_ids_72_ok(3) primary_runs_mem(73)] by simp

lemma primary_fixed_73:
  "primary_fixed 10950 \<and> primary_fixed 10951 \<and> primary_fixed 10954 \<and>
   primary_fixed 10955 \<and> primary_fixed 10956 \<and> primary_fixed 10960 \<and>
   primary_fixed 10961 \<and> primary_fixed 10962 \<and> primary_fixed 10965 \<and>
   primary_fixed 10966 \<and> primary_fixed 10967 \<and> primary_fixed 10968 \<and>
   primary_fixed 10969 \<and> primary_fixed 10970 \<and> primary_fixed 10971 \<and>
   primary_fixed 10973 \<and> primary_fixed 10976 \<and> primary_fixed 10977 \<and>
   primary_fixed 10978 \<and> primary_fixed 10979 \<and> primary_fixed 10983 \<and>
   primary_fixed 10984 \<and> primary_fixed 10987 \<and> primary_fixed 10990 \<and>
   primary_fixed 10993 \<and> primary_fixed 10995 \<and> primary_fixed 10996 \<and>
   primary_fixed 10997 \<and> primary_fixed 10998 \<and> primary_fixed 10999 \<and>
   primary_fixed 11001 \<and> primary_fixed 11003 \<and> primary_fixed 11004 \<and>
   primary_fixed 11006 \<and> primary_fixed 11008 \<and> primary_fixed 11009 \<and>
   primary_fixed 11010 \<and> primary_fixed 11011 \<and> primary_fixed 11012 \<and>
   primary_fixed 11013 \<and> primary_fixed 11014 \<and> primary_fixed 11017 \<and>
   primary_fixed 11018 \<and> primary_fixed 11023 \<and> primary_fixed 11027 \<and>
   primary_fixed 11028 \<and> primary_fixed 11029 \<and> primary_fixed 11030 \<and>
   primary_fixed 11031 \<and> primary_fixed 11032 \<and> primary_fixed 11033 \<and>
   primary_fixed 11034 \<and> primary_fixed 11035 \<and> primary_fixed 11036 \<and>
   primary_fixed 11037 \<and> primary_fixed 11038 \<and> primary_fixed 11041 \<and>
   primary_fixed 11042 \<and> primary_fixed 11043 \<and> primary_fixed 11044 \<and>
   primary_fixed 11045 \<and> primary_fixed 11046 \<and> primary_fixed 11049 \<and>
   primary_fixed 11054 \<and> primary_fixed 11055 \<and> primary_fixed 11056 \<and>
   primary_fixed 11061 \<and> primary_fixed 11062 \<and> primary_fixed 11065 \<and>
   primary_fixed 11067 \<and> primary_fixed 11069 \<and> primary_fixed 11071 \<and>
   primary_fixed 11072 \<and> primary_fixed 11074 \<and> primary_fixed 11075 \<and>
   primary_fixed 11081 \<and> primary_fixed 11082 \<and> primary_fixed 11083 \<and>
   primary_fixed 11086 \<and> primary_fixed 11088 \<and> primary_fixed 11096 \<and>
   primary_fixed 11098 \<and> primary_fixed 11099"
  using fixed_facts [OF ts_primary_state_ids_73_ok(3) primary_runs_mem(74)] by simp

lemma primary_fixed_74:
  "primary_fixed 11100 \<and> primary_fixed 11103 \<and> primary_fixed 11108 \<and>
   primary_fixed 11109 \<and> primary_fixed 11110 \<and> primary_fixed 11112 \<and>
   primary_fixed 11113 \<and> primary_fixed 11115 \<and> primary_fixed 11116 \<and>
   primary_fixed 11117 \<and> primary_fixed 11128 \<and> primary_fixed 11139 \<and>
   primary_fixed 11143 \<and> primary_fixed 11145 \<and> primary_fixed 11146 \<and>
   primary_fixed 11150 \<and> primary_fixed 11156 \<and> primary_fixed 11161 \<and>
   primary_fixed 11178 \<and> primary_fixed 11181 \<and> primary_fixed 11188 \<and>
   primary_fixed 11189 \<and> primary_fixed 11190 \<and> primary_fixed 11191 \<and>
   primary_fixed 11192 \<and> primary_fixed 11193 \<and> primary_fixed 11198 \<and>
   primary_fixed 11199 \<and> primary_fixed 11200 \<and> primary_fixed 11201 \<and>
   primary_fixed 11202 \<and> primary_fixed 11203 \<and> primary_fixed 11204 \<and>
   primary_fixed 11206 \<and> primary_fixed 11207 \<and> primary_fixed 11208 \<and>
   primary_fixed 11209 \<and> primary_fixed 11212 \<and> primary_fixed 11214 \<and>
   primary_fixed 11216 \<and> primary_fixed 11218 \<and> primary_fixed 11219 \<and>
   primary_fixed 11221 \<and> primary_fixed 11222 \<and> primary_fixed 11223 \<and>
   primary_fixed 11224 \<and> primary_fixed 11225 \<and> primary_fixed 11226 \<and>
   primary_fixed 11227 \<and> primary_fixed 11228 \<and> primary_fixed 11230 \<and>
   primary_fixed 11231 \<and> primary_fixed 11237 \<and> primary_fixed 11239 \<and>
   primary_fixed 11240 \<and> primary_fixed 11241 \<and> primary_fixed 11242 \<and>
   primary_fixed 11243 \<and> primary_fixed 11244 \<and> primary_fixed 11245 \<and>
   primary_fixed 11246 \<and> primary_fixed 11247 \<and> primary_fixed 11248 \<and>
   primary_fixed 11249"
  using fixed_facts [OF ts_primary_state_ids_74_ok(3) primary_runs_mem(75)] by simp

lemma primary_fixed_75:
  "primary_fixed 11250 \<and> primary_fixed 11251 \<and> primary_fixed 11252 \<and>
   primary_fixed 11253 \<and> primary_fixed 11254 \<and> primary_fixed 11255 \<and>
   primary_fixed 11256 \<and> primary_fixed 11258 \<and> primary_fixed 11259 \<and>
   primary_fixed 11260 \<and> primary_fixed 11261 \<and> primary_fixed 11262 \<and>
   primary_fixed 11263 \<and> primary_fixed 11264 \<and> primary_fixed 11265 \<and>
   primary_fixed 11266 \<and> primary_fixed 11267 \<and> primary_fixed 11268 \<and>
   primary_fixed 11269 \<and> primary_fixed 11270 \<and> primary_fixed 11272 \<and>
   primary_fixed 11273 \<and> primary_fixed 11274 \<and> primary_fixed 11275 \<and>
   primary_fixed 11278 \<and> primary_fixed 11279 \<and> primary_fixed 11280 \<and>
   primary_fixed 11281 \<and> primary_fixed 11282 \<and> primary_fixed 11284 \<and>
   primary_fixed 11285 \<and> primary_fixed 11286 \<and> primary_fixed 11287 \<and>
   primary_fixed 11289 \<and> primary_fixed 11291 \<and> primary_fixed 11292 \<and>
   primary_fixed 11293 \<and> primary_fixed 11294 \<and> primary_fixed 11295 \<and>
   primary_fixed 11296 \<and> primary_fixed 11297 \<and> primary_fixed 11298 \<and>
   primary_fixed 11299 \<and> primary_fixed 11301 \<and> primary_fixed 11302 \<and>
   primary_fixed 11304 \<and> primary_fixed 11307 \<and> primary_fixed 11308 \<and>
   primary_fixed 11309 \<and> primary_fixed 11310 \<and> primary_fixed 11312 \<and>
   primary_fixed 11314 \<and> primary_fixed 11315 \<and> primary_fixed 11316 \<and>
   primary_fixed 11317 \<and> primary_fixed 11318 \<and> primary_fixed 11319 \<and>
   primary_fixed 11320 \<and> primary_fixed 11321 \<and> primary_fixed 11322 \<and>
   primary_fixed 11324 \<and> primary_fixed 11326 \<and> primary_fixed 11327 \<and>
   primary_fixed 11328 \<and> primary_fixed 11331 \<and> primary_fixed 11332 \<and>
   primary_fixed 11335 \<and> primary_fixed 11336 \<and> primary_fixed 11337 \<and>
   primary_fixed 11338 \<and> primary_fixed 11339 \<and> primary_fixed 11340 \<and>
   primary_fixed 11341 \<and> primary_fixed 11342 \<and> primary_fixed 11343 \<and>
   primary_fixed 11349 \<and> primary_fixed 11350 \<and> primary_fixed 11351 \<and>
   primary_fixed 11352 \<and> primary_fixed 11353 \<and> primary_fixed 11354 \<and>
   primary_fixed 11355 \<and> primary_fixed 11356 \<and> primary_fixed 11359 \<and>
   primary_fixed 11360 \<and> primary_fixed 11361 \<and> primary_fixed 11362 \<and>
   primary_fixed 11363 \<and> primary_fixed 11364 \<and> primary_fixed 11365 \<and>
   primary_fixed 11366 \<and> primary_fixed 11367 \<and> primary_fixed 11368 \<and>
   primary_fixed 11369 \<and> primary_fixed 11370 \<and> primary_fixed 11371 \<and>
   primary_fixed 11372 \<and> primary_fixed 11373 \<and> primary_fixed 11374 \<and>
   primary_fixed 11378 \<and> primary_fixed 11379 \<and> primary_fixed 11381 \<and>
   primary_fixed 11383 \<and> primary_fixed 11384 \<and> primary_fixed 11386 \<and>
   primary_fixed 11393 \<and> primary_fixed 11394 \<and> primary_fixed 11396 \<and>
   primary_fixed 11398"
  using fixed_facts [OF ts_primary_state_ids_75_ok(3) primary_runs_mem(76)] by simp

lemma primary_fixed_76:
  "primary_fixed 11400 \<and> primary_fixed 11406 \<and> primary_fixed 11407 \<and>
   primary_fixed 11408 \<and> primary_fixed 11411 \<and> primary_fixed 11412 \<and>
   primary_fixed 11413 \<and> primary_fixed 11414 \<and> primary_fixed 11416 \<and>
   primary_fixed 11417 \<and> primary_fixed 11420 \<and> primary_fixed 11424 \<and>
   primary_fixed 11425 \<and> primary_fixed 11426 \<and> primary_fixed 11427 \<and>
   primary_fixed 11429 \<and> primary_fixed 11430 \<and> primary_fixed 11431 \<and>
   primary_fixed 11434 \<and> primary_fixed 11439 \<and> primary_fixed 11440 \<and>
   primary_fixed 11441 \<and> primary_fixed 11442 \<and> primary_fixed 11443 \<and>
   primary_fixed 11444 \<and> primary_fixed 11445 \<and> primary_fixed 11446 \<and>
   primary_fixed 11450 \<and> primary_fixed 11451 \<and> primary_fixed 11453 \<and>
   primary_fixed 11455 \<and> primary_fixed 11456 \<and> primary_fixed 11459 \<and>
   primary_fixed 11462 \<and> primary_fixed 11463 \<and> primary_fixed 11465 \<and>
   primary_fixed 11468 \<and> primary_fixed 11471 \<and> primary_fixed 11474 \<and>
   primary_fixed 11475 \<and> primary_fixed 11479 \<and> primary_fixed 11480 \<and>
   primary_fixed 11483 \<and> primary_fixed 11485 \<and> primary_fixed 11486 \<and>
   primary_fixed 11488 \<and> primary_fixed 11490 \<and> primary_fixed 11491 \<and>
   primary_fixed 11492 \<and> primary_fixed 11493 \<and> primary_fixed 11494 \<and>
   primary_fixed 11495 \<and> primary_fixed 11499 \<and> primary_fixed 11501 \<and>
   primary_fixed 11503 \<and> primary_fixed 11507 \<and> primary_fixed 11515 \<and>
   primary_fixed 11517 \<and> primary_fixed 11519 \<and> primary_fixed 11520 \<and>
   primary_fixed 11522 \<and> primary_fixed 11531 \<and> primary_fixed 11532 \<and>
   primary_fixed 11535 \<and> primary_fixed 11538 \<and> primary_fixed 11540 \<and>
   primary_fixed 11543 \<and> primary_fixed 11548"
  using fixed_facts [OF ts_primary_state_ids_76_ok(3) primary_runs_mem(77)] by simp

lemma primary_fixed_77:
  "primary_fixed 11550 \<and> primary_fixed 11551 \<and> primary_fixed 11552 \<and>
   primary_fixed 11554 \<and> primary_fixed 11556 \<and> primary_fixed 11559 \<and>
   primary_fixed 11560 \<and> primary_fixed 11561 \<and> primary_fixed 11563 \<and>
   primary_fixed 11565 \<and> primary_fixed 11566 \<and> primary_fixed 11568 \<and>
   primary_fixed 11569 \<and> primary_fixed 11572 \<and> primary_fixed 11573 \<and>
   primary_fixed 11587 \<and> primary_fixed 11591 \<and> primary_fixed 11592 \<and>
   primary_fixed 11598 \<and> primary_fixed 11602 \<and> primary_fixed 11609 \<and>
   primary_fixed 11637 \<and> primary_fixed 11639 \<and> primary_fixed 11640 \<and>
   primary_fixed 11643 \<and> primary_fixed 11650 \<and> primary_fixed 11653 \<and>
   primary_fixed 11655 \<and> primary_fixed 11657 \<and> primary_fixed 11659 \<and>
   primary_fixed 11660 \<and> primary_fixed 11667 \<and> primary_fixed 11672 \<and>
   primary_fixed 11681 \<and> primary_fixed 11688 \<and> primary_fixed 11694 \<and>
   primary_fixed 11697"
  using fixed_facts [OF ts_primary_state_ids_77_ok(3) primary_runs_mem(78)] by simp

lemma primary_fixed_78:
  "primary_fixed 11706 \<and> primary_fixed 11707 \<and> primary_fixed 11709 \<and>
   primary_fixed 11712 \<and> primary_fixed 11718 \<and> primary_fixed 11719 \<and>
   primary_fixed 11724 \<and> primary_fixed 11739 \<and> primary_fixed 11748 \<and>
   primary_fixed 11749 \<and> primary_fixed 11750 \<and> primary_fixed 11757 \<and>
   primary_fixed 11771 \<and> primary_fixed 11775 \<and> primary_fixed 11785 \<and>
   primary_fixed 11793 \<and> primary_fixed 11806 \<and> primary_fixed 11807 \<and>
   primary_fixed 11808 \<and> primary_fixed 11809 \<and> primary_fixed 11810 \<and>
   primary_fixed 11811 \<and> primary_fixed 11812 \<and> primary_fixed 11813 \<and>
   primary_fixed 11814 \<and> primary_fixed 11815 \<and> primary_fixed 11816 \<and>
   primary_fixed 11817 \<and> primary_fixed 11819 \<and> primary_fixed 11821 \<and>
   primary_fixed 11823 \<and> primary_fixed 11824 \<and> primary_fixed 11825 \<and>
   primary_fixed 11826 \<and> primary_fixed 11827 \<and> primary_fixed 11829 \<and>
   primary_fixed 11831 \<and> primary_fixed 11832 \<and> primary_fixed 11833 \<and>
   primary_fixed 11834 \<and> primary_fixed 11837 \<and> primary_fixed 11838 \<and>
   primary_fixed 11839 \<and> primary_fixed 11840 \<and> primary_fixed 11841 \<and>
   primary_fixed 11842 \<and> primary_fixed 11843 \<and> primary_fixed 11846 \<and>
   primary_fixed 11848"
  using fixed_facts [OF ts_primary_state_ids_78_ok(3) primary_runs_mem(79)] by simp

lemma primary_fixed_79:
  "primary_fixed 11850 \<and> primary_fixed 11852 \<and> primary_fixed 11853 \<and>
   primary_fixed 11854 \<and> primary_fixed 11856 \<and> primary_fixed 11857 \<and>
   primary_fixed 11858 \<and> primary_fixed 11862 \<and> primary_fixed 11863 \<and>
   primary_fixed 11865 \<and> primary_fixed 11866 \<and> primary_fixed 11867 \<and>
   primary_fixed 11868 \<and> primary_fixed 11870 \<and> primary_fixed 11871 \<and>
   primary_fixed 11874 \<and> primary_fixed 11875 \<and> primary_fixed 11877 \<and>
   primary_fixed 11879 \<and> primary_fixed 11881 \<and> primary_fixed 11882 \<and>
   primary_fixed 11883 \<and> primary_fixed 11885 \<and> primary_fixed 11886 \<and>
   primary_fixed 11888 \<and> primary_fixed 11890 \<and> primary_fixed 11892 \<and>
   primary_fixed 11899 \<and> primary_fixed 11900 \<and> primary_fixed 11901 \<and>
   primary_fixed 11903 \<and> primary_fixed 11904 \<and> primary_fixed 11906 \<and>
   primary_fixed 11909 \<and> primary_fixed 11912 \<and> primary_fixed 11914 \<and>
   primary_fixed 11915 \<and> primary_fixed 11916 \<and> primary_fixed 11917 \<and>
   primary_fixed 11921 \<and> primary_fixed 11925 \<and> primary_fixed 11926 \<and>
   primary_fixed 11928 \<and> primary_fixed 11931 \<and> primary_fixed 11933 \<and>
   primary_fixed 11936 \<and> primary_fixed 11937 \<and> primary_fixed 11939 \<and>
   primary_fixed 11941 \<and> primary_fixed 11942 \<and> primary_fixed 11943 \<and>
   primary_fixed 11946 \<and> primary_fixed 11955 \<and> primary_fixed 11957 \<and>
   primary_fixed 11961 \<and> primary_fixed 11965 \<and> primary_fixed 11971 \<and>
   primary_fixed 11972 \<and> primary_fixed 11974 \<and> primary_fixed 11978 \<and>
   primary_fixed 11993 \<and> primary_fixed 11997"
  using fixed_facts [OF ts_primary_state_ids_79_ok(3) primary_runs_mem(80)] by simp

lemma primary_fixed_80:
  "primary_fixed 12004 \<and> primary_fixed 12007 \<and> primary_fixed 12016 \<and>
   primary_fixed 12018 \<and> primary_fixed 12024 \<and> primary_fixed 12046 \<and>
   primary_fixed 12049 \<and> primary_fixed 12052 \<and> primary_fixed 12066 \<and>
   primary_fixed 12084 \<and> primary_fixed 12088 \<and> primary_fixed 12097 \<and>
   primary_fixed 12102 \<and> primary_fixed 12103 \<and> primary_fixed 12106 \<and>
   primary_fixed 12110 \<and> primary_fixed 12113 \<and> primary_fixed 12122 \<and>
   primary_fixed 12131"
  using fixed_facts [OF ts_primary_state_ids_80_ok(3) primary_runs_mem(81)] by simp

lemma primary_fixed_81:
  "primary_fixed 12156 \<and> primary_fixed 12157 \<and> primary_fixed 12164 \<and>
   primary_fixed 12166 \<and> primary_fixed 12184 \<and> primary_fixed 12186 \<and>
   primary_fixed 12192 \<and> primary_fixed 12193 \<and> primary_fixed 12214 \<and>
   primary_fixed 12224 \<and> primary_fixed 12233 \<and> primary_fixed 12277 \<and>
   primary_fixed 12279 \<and> primary_fixed 12285 \<and> primary_fixed 12286 \<and>
   primary_fixed 12287 \<and> primary_fixed 12288 \<and> primary_fixed 12290 \<and>
   primary_fixed 12291 \<and> primary_fixed 12292 \<and> primary_fixed 12293 \<and>
   primary_fixed 12294 \<and> primary_fixed 12295 \<and> primary_fixed 12298 \<and>
   primary_fixed 12299"
  using fixed_facts [OF ts_primary_state_ids_81_ok(3) primary_runs_mem(82)] by simp

lemma primary_fixed_82:
  "primary_fixed 12301 \<and> primary_fixed 12302 \<and> primary_fixed 12303 \<and>
   primary_fixed 12304 \<and> primary_fixed 12306 \<and> primary_fixed 12308 \<and>
   primary_fixed 12309 \<and> primary_fixed 12311 \<and> primary_fixed 12313 \<and>
   primary_fixed 12314 \<and> primary_fixed 12315 \<and> primary_fixed 12316 \<and>
   primary_fixed 12317 \<and> primary_fixed 12318 \<and> primary_fixed 12319 \<and>
   primary_fixed 12323 \<and> primary_fixed 12324 \<and> primary_fixed 12325 \<and>
   primary_fixed 12326 \<and> primary_fixed 12329 \<and> primary_fixed 12332 \<and>
   primary_fixed 12336 \<and> primary_fixed 12337 \<and> primary_fixed 12338 \<and>
   primary_fixed 12340 \<and> primary_fixed 12342 \<and> primary_fixed 12345 \<and>
   primary_fixed 12347 \<and> primary_fixed 12352 \<and> primary_fixed 12356 \<and>
   primary_fixed 12360 \<and> primary_fixed 12362 \<and> primary_fixed 12363 \<and>
   primary_fixed 12364 \<and> primary_fixed 12368 \<and> primary_fixed 12371 \<and>
   primary_fixed 12374 \<and> primary_fixed 12377 \<and> primary_fixed 12378 \<and>
   primary_fixed 12382 \<and> primary_fixed 12383 \<and> primary_fixed 12385 \<and>
   primary_fixed 12386 \<and> primary_fixed 12390 \<and> primary_fixed 12393 \<and>
   primary_fixed 12397 \<and> primary_fixed 12400 \<and> primary_fixed 12401 \<and>
   primary_fixed 12402 \<and> primary_fixed 12403 \<and> primary_fixed 12406 \<and>
   primary_fixed 12407 \<and> primary_fixed 12409 \<and> primary_fixed 12410 \<and>
   primary_fixed 12411 \<and> primary_fixed 12414 \<and> primary_fixed 12415 \<and>
   primary_fixed 12417 \<and> primary_fixed 12418 \<and> primary_fixed 12419 \<and>
   primary_fixed 12421 \<and> primary_fixed 12422 \<and> primary_fixed 12424 \<and>
   primary_fixed 12425 \<and> primary_fixed 12426 \<and> primary_fixed 12430 \<and>
   primary_fixed 12431 \<and> primary_fixed 12432 \<and> primary_fixed 12439 \<and>
   primary_fixed 12442 \<and> primary_fixed 12443 \<and> primary_fixed 12446 \<and>
   primary_fixed 12448"
  using fixed_facts [OF ts_primary_state_ids_82_ok(3) primary_runs_mem(83)] by simp

lemma primary_fixed_83:
  "primary_fixed 12456 \<and> primary_fixed 12458 \<and> primary_fixed 12462 \<and>
   primary_fixed 12463 \<and> primary_fixed 12464 \<and> primary_fixed 12465 \<and>
   primary_fixed 12466 \<and> primary_fixed 12467 \<and> primary_fixed 12468 \<and>
   primary_fixed 12469 \<and> primary_fixed 12470 \<and> primary_fixed 12471 \<and>
   primary_fixed 12472 \<and> primary_fixed 12473 \<and> primary_fixed 12474 \<and>
   primary_fixed 12475 \<and> primary_fixed 12476 \<and> primary_fixed 12477 \<and>
   primary_fixed 12478 \<and> primary_fixed 12480 \<and> primary_fixed 12481 \<and>
   primary_fixed 12482 \<and> primary_fixed 12483 \<and> primary_fixed 12484 \<and>
   primary_fixed 12485 \<and> primary_fixed 12487 \<and> primary_fixed 12489 \<and>
   primary_fixed 12491 \<and> primary_fixed 12492 \<and> primary_fixed 12493 \<and>
   primary_fixed 12494 \<and> primary_fixed 12495 \<and> primary_fixed 12496 \<and>
   primary_fixed 12497 \<and> primary_fixed 12499 \<and> primary_fixed 12500 \<and>
   primary_fixed 12504 \<and> primary_fixed 12506 \<and> primary_fixed 12507 \<and>
   primary_fixed 12511 \<and> primary_fixed 12512 \<and> primary_fixed 12513 \<and>
   primary_fixed 12515 \<and> primary_fixed 12518 \<and> primary_fixed 12524 \<and>
   primary_fixed 12525 \<and> primary_fixed 12526 \<and> primary_fixed 12527 \<and>
   primary_fixed 12528 \<and> primary_fixed 12531 \<and> primary_fixed 12540 \<and>
   primary_fixed 12545 \<and> primary_fixed 12548 \<and> primary_fixed 12549 \<and>
   primary_fixed 12553 \<and> primary_fixed 12554 \<and> primary_fixed 12555 \<and>
   primary_fixed 12556 \<and> primary_fixed 12558 \<and> primary_fixed 12561 \<and>
   primary_fixed 12563 \<and> primary_fixed 12565 \<and> primary_fixed 12566 \<and>
   primary_fixed 12567 \<and> primary_fixed 12569 \<and> primary_fixed 12570 \<and>
   primary_fixed 12575 \<and> primary_fixed 12576 \<and> primary_fixed 12577 \<and>
   primary_fixed 12581 \<and> primary_fixed 12582 \<and> primary_fixed 12583 \<and>
   primary_fixed 12584 \<and> primary_fixed 12593 \<and> primary_fixed 12596 \<and>
   primary_fixed 12597 \<and> primary_fixed 12598"
  using fixed_facts [OF ts_primary_state_ids_83_ok(3) primary_runs_mem(84)] by simp

lemma primary_fixed_84:
  "primary_fixed 12601 \<and> primary_fixed 12604 \<and> primary_fixed 12605 \<and>
   primary_fixed 12608 \<and> primary_fixed 12609 \<and> primary_fixed 12612 \<and>
   primary_fixed 12613 \<and> primary_fixed 12614 \<and> primary_fixed 12615 \<and>
   primary_fixed 12624 \<and> primary_fixed 12627 \<and> primary_fixed 12628 \<and>
   primary_fixed 12630 \<and> primary_fixed 12635 \<and> primary_fixed 12639 \<and>
   primary_fixed 12645 \<and> primary_fixed 12649 \<and> primary_fixed 12650 \<and>
   primary_fixed 12659 \<and> primary_fixed 12662 \<and> primary_fixed 12665 \<and>
   primary_fixed 12673 \<and> primary_fixed 12675 \<and> primary_fixed 12685 \<and>
   primary_fixed 12687 \<and> primary_fixed 12688 \<and> primary_fixed 12692 \<and>
   primary_fixed 12705 \<and> primary_fixed 12717 \<and> primary_fixed 12722 \<and>
   primary_fixed 12727 \<and> primary_fixed 12730 \<and> primary_fixed 12731 \<and>
   primary_fixed 12741"
  using fixed_facts [OF ts_primary_state_ids_84_ok(3) primary_runs_mem(85)] by simp

lemma primary_fixed_85:
  "primary_fixed 12750"
  using fixed_facts [OF ts_primary_state_ids_85_ok(3) primary_runs_mem(86)] by simp

lemmas primary_fixed_facts =
  primary_fixed_0 primary_fixed_1 primary_fixed_2 primary_fixed_3 primary_fixed_6 primary_fixed_7
  primary_fixed_8 primary_fixed_9 primary_fixed_10 primary_fixed_11 primary_fixed_12
  primary_fixed_13 primary_fixed_14 primary_fixed_15 primary_fixed_16 primary_fixed_18
  primary_fixed_19 primary_fixed_20 primary_fixed_21 primary_fixed_22 primary_fixed_23
  primary_fixed_24 primary_fixed_25 primary_fixed_26 primary_fixed_27 primary_fixed_28
  primary_fixed_29 primary_fixed_30 primary_fixed_31 primary_fixed_32 primary_fixed_33
  primary_fixed_34 primary_fixed_35 primary_fixed_36 primary_fixed_37 primary_fixed_38
  primary_fixed_39 primary_fixed_40 primary_fixed_41 primary_fixed_42 primary_fixed_43
  primary_fixed_44 primary_fixed_45 primary_fixed_46 primary_fixed_47 primary_fixed_48
  primary_fixed_49 primary_fixed_50 primary_fixed_51 primary_fixed_52 primary_fixed_53
  primary_fixed_54 primary_fixed_55 primary_fixed_56 primary_fixed_57 primary_fixed_58
  primary_fixed_59 primary_fixed_60 primary_fixed_63 primary_fixed_64 primary_fixed_65
  primary_fixed_66 primary_fixed_67 primary_fixed_68 primary_fixed_69 primary_fixed_70
  primary_fixed_71 primary_fixed_72 primary_fixed_73 primary_fixed_74 primary_fixed_75
  primary_fixed_76 primary_fixed_77 primary_fixed_78 primary_fixed_79 primary_fixed_80
  primary_fixed_81 primary_fixed_82 primary_fixed_83 primary_fixed_84 primary_fixed_85

text \<open>In the simpset for the checks below only.\<close>

declare primary_fixed_facts [simp] One_nat_def [simp del]

lemma ts_primary_state_ids_0_primary: "list_all primary_fixed ts_primary_state_ids_0"
  unfolding ts_primary_state_ids_0_def by simp

lemma ts_primary_state_ids_1_primary: "list_all primary_fixed ts_primary_state_ids_1"
  unfolding ts_primary_state_ids_1_def by simp

lemma ts_primary_state_ids_2_primary: "list_all primary_fixed ts_primary_state_ids_2"
  unfolding ts_primary_state_ids_2_def by simp

lemma ts_primary_state_ids_3_primary: "list_all primary_fixed ts_primary_state_ids_3"
  unfolding ts_primary_state_ids_3_def by simp

lemma ts_primary_state_ids_4_primary: "list_all primary_fixed ts_primary_state_ids_4"
  unfolding ts_primary_state_ids_4_def by simp

lemma ts_primary_state_ids_5_primary: "list_all primary_fixed ts_primary_state_ids_5"
  unfolding ts_primary_state_ids_5_def by simp

lemma ts_primary_state_ids_6_primary: "list_all primary_fixed ts_primary_state_ids_6"
  unfolding ts_primary_state_ids_6_def by simp

lemma ts_primary_state_ids_7_primary: "list_all primary_fixed ts_primary_state_ids_7"
  unfolding ts_primary_state_ids_7_def by simp

lemma ts_primary_state_ids_8_primary: "list_all primary_fixed ts_primary_state_ids_8"
  unfolding ts_primary_state_ids_8_def by simp

lemma ts_primary_state_ids_9_primary: "list_all primary_fixed ts_primary_state_ids_9"
  unfolding ts_primary_state_ids_9_def by simp

lemma ts_primary_state_ids_10_primary: "list_all primary_fixed ts_primary_state_ids_10"
  unfolding ts_primary_state_ids_10_def by simp

lemma ts_primary_state_ids_11_primary: "list_all primary_fixed ts_primary_state_ids_11"
  unfolding ts_primary_state_ids_11_def by simp

lemma ts_primary_state_ids_12_primary: "list_all primary_fixed ts_primary_state_ids_12"
  unfolding ts_primary_state_ids_12_def by simp

lemma ts_primary_state_ids_13_primary: "list_all primary_fixed ts_primary_state_ids_13"
  unfolding ts_primary_state_ids_13_def by simp

lemma ts_primary_state_ids_14_primary: "list_all primary_fixed ts_primary_state_ids_14"
  unfolding ts_primary_state_ids_14_def by simp

lemma ts_primary_state_ids_15_primary: "list_all primary_fixed ts_primary_state_ids_15"
  unfolding ts_primary_state_ids_15_def by simp

lemma ts_primary_state_ids_16_primary: "list_all primary_fixed ts_primary_state_ids_16"
  unfolding ts_primary_state_ids_16_def by simp

lemma ts_primary_state_ids_17_primary: "list_all primary_fixed ts_primary_state_ids_17"
  unfolding ts_primary_state_ids_17_def by simp

lemma ts_primary_state_ids_18_primary: "list_all primary_fixed ts_primary_state_ids_18"
  unfolding ts_primary_state_ids_18_def by simp

lemma ts_primary_state_ids_19_primary: "list_all primary_fixed ts_primary_state_ids_19"
  unfolding ts_primary_state_ids_19_def by simp

lemma ts_primary_state_ids_20_primary: "list_all primary_fixed ts_primary_state_ids_20"
  unfolding ts_primary_state_ids_20_def by simp

lemma ts_primary_state_ids_21_primary: "list_all primary_fixed ts_primary_state_ids_21"
  unfolding ts_primary_state_ids_21_def by simp

lemma ts_primary_state_ids_22_primary: "list_all primary_fixed ts_primary_state_ids_22"
  unfolding ts_primary_state_ids_22_def by simp

lemma ts_primary_state_ids_23_primary: "list_all primary_fixed ts_primary_state_ids_23"
  unfolding ts_primary_state_ids_23_def by simp

lemma ts_primary_state_ids_24_primary: "list_all primary_fixed ts_primary_state_ids_24"
  unfolding ts_primary_state_ids_24_def by simp

lemma ts_primary_state_ids_25_primary: "list_all primary_fixed ts_primary_state_ids_25"
  unfolding ts_primary_state_ids_25_def by simp

lemma ts_primary_state_ids_26_primary: "list_all primary_fixed ts_primary_state_ids_26"
  unfolding ts_primary_state_ids_26_def by simp

lemma ts_primary_state_ids_27_primary: "list_all primary_fixed ts_primary_state_ids_27"
  unfolding ts_primary_state_ids_27_def by simp

lemma ts_primary_state_ids_28_primary: "list_all primary_fixed ts_primary_state_ids_28"
  unfolding ts_primary_state_ids_28_def by simp

lemma ts_primary_state_ids_29_primary: "list_all primary_fixed ts_primary_state_ids_29"
  unfolding ts_primary_state_ids_29_def by simp

lemma ts_primary_state_ids_30_primary: "list_all primary_fixed ts_primary_state_ids_30"
  unfolding ts_primary_state_ids_30_def by simp

lemma ts_primary_state_ids_31_primary: "list_all primary_fixed ts_primary_state_ids_31"
  unfolding ts_primary_state_ids_31_def by simp

lemma ts_primary_state_ids_32_primary: "list_all primary_fixed ts_primary_state_ids_32"
  unfolding ts_primary_state_ids_32_def by simp

lemma ts_primary_state_ids_33_primary: "list_all primary_fixed ts_primary_state_ids_33"
  unfolding ts_primary_state_ids_33_def by simp

lemma ts_primary_state_ids_34_primary: "list_all primary_fixed ts_primary_state_ids_34"
  unfolding ts_primary_state_ids_34_def by simp

lemma ts_primary_state_ids_35_primary: "list_all primary_fixed ts_primary_state_ids_35"
  unfolding ts_primary_state_ids_35_def by simp

lemma ts_primary_state_ids_36_primary: "list_all primary_fixed ts_primary_state_ids_36"
  unfolding ts_primary_state_ids_36_def by simp

lemma ts_primary_state_ids_37_primary: "list_all primary_fixed ts_primary_state_ids_37"
  unfolding ts_primary_state_ids_37_def by simp

lemma ts_primary_state_ids_38_primary: "list_all primary_fixed ts_primary_state_ids_38"
  unfolding ts_primary_state_ids_38_def by simp

lemma ts_primary_state_ids_39_primary: "list_all primary_fixed ts_primary_state_ids_39"
  unfolding ts_primary_state_ids_39_def by simp

lemma ts_primary_state_ids_40_primary: "list_all primary_fixed ts_primary_state_ids_40"
  unfolding ts_primary_state_ids_40_def by simp

lemma ts_primary_state_ids_41_primary: "list_all primary_fixed ts_primary_state_ids_41"
  unfolding ts_primary_state_ids_41_def by simp

lemma ts_primary_state_ids_42_primary: "list_all primary_fixed ts_primary_state_ids_42"
  unfolding ts_primary_state_ids_42_def by simp

lemma ts_primary_state_ids_43_primary: "list_all primary_fixed ts_primary_state_ids_43"
  unfolding ts_primary_state_ids_43_def by simp

lemma ts_primary_state_ids_44_primary: "list_all primary_fixed ts_primary_state_ids_44"
  unfolding ts_primary_state_ids_44_def by simp

lemma ts_primary_state_ids_45_primary: "list_all primary_fixed ts_primary_state_ids_45"
  unfolding ts_primary_state_ids_45_def by simp

lemma ts_primary_state_ids_46_primary: "list_all primary_fixed ts_primary_state_ids_46"
  unfolding ts_primary_state_ids_46_def by simp

lemma ts_primary_state_ids_47_primary: "list_all primary_fixed ts_primary_state_ids_47"
  unfolding ts_primary_state_ids_47_def by simp

lemma ts_primary_state_ids_48_primary: "list_all primary_fixed ts_primary_state_ids_48"
  unfolding ts_primary_state_ids_48_def by simp

lemma ts_primary_state_ids_49_primary: "list_all primary_fixed ts_primary_state_ids_49"
  unfolding ts_primary_state_ids_49_def by simp

lemma ts_primary_state_ids_50_primary: "list_all primary_fixed ts_primary_state_ids_50"
  unfolding ts_primary_state_ids_50_def by simp

lemma ts_primary_state_ids_51_primary: "list_all primary_fixed ts_primary_state_ids_51"
  unfolding ts_primary_state_ids_51_def by simp

lemma ts_primary_state_ids_52_primary: "list_all primary_fixed ts_primary_state_ids_52"
  unfolding ts_primary_state_ids_52_def by simp

lemma ts_primary_state_ids_53_primary: "list_all primary_fixed ts_primary_state_ids_53"
  unfolding ts_primary_state_ids_53_def by simp

lemma ts_primary_state_ids_54_primary: "list_all primary_fixed ts_primary_state_ids_54"
  unfolding ts_primary_state_ids_54_def by simp

lemma ts_primary_state_ids_55_primary: "list_all primary_fixed ts_primary_state_ids_55"
  unfolding ts_primary_state_ids_55_def by simp

lemma ts_primary_state_ids_56_primary: "list_all primary_fixed ts_primary_state_ids_56"
  unfolding ts_primary_state_ids_56_def by simp

lemma ts_primary_state_ids_57_primary: "list_all primary_fixed ts_primary_state_ids_57"
  unfolding ts_primary_state_ids_57_def by simp

lemma ts_primary_state_ids_58_primary: "list_all primary_fixed ts_primary_state_ids_58"
  unfolding ts_primary_state_ids_58_def by simp

lemma ts_primary_state_ids_59_primary: "list_all primary_fixed ts_primary_state_ids_59"
  unfolding ts_primary_state_ids_59_def by simp

lemma ts_primary_state_ids_60_primary: "list_all primary_fixed ts_primary_state_ids_60"
  unfolding ts_primary_state_ids_60_def by simp

lemma ts_primary_state_ids_61_primary: "list_all primary_fixed ts_primary_state_ids_61"
  unfolding ts_primary_state_ids_61_def by simp

lemma ts_primary_state_ids_62_primary: "list_all primary_fixed ts_primary_state_ids_62"
  unfolding ts_primary_state_ids_62_def by simp

lemma ts_primary_state_ids_63_primary: "list_all primary_fixed ts_primary_state_ids_63"
  unfolding ts_primary_state_ids_63_def by simp

lemma ts_primary_state_ids_64_primary: "list_all primary_fixed ts_primary_state_ids_64"
  unfolding ts_primary_state_ids_64_def by simp

lemma ts_primary_state_ids_65_primary: "list_all primary_fixed ts_primary_state_ids_65"
  unfolding ts_primary_state_ids_65_def by simp

lemma ts_primary_state_ids_66_primary: "list_all primary_fixed ts_primary_state_ids_66"
  unfolding ts_primary_state_ids_66_def by simp

lemma ts_primary_state_ids_67_primary: "list_all primary_fixed ts_primary_state_ids_67"
  unfolding ts_primary_state_ids_67_def by simp

lemma ts_primary_state_ids_68_primary: "list_all primary_fixed ts_primary_state_ids_68"
  unfolding ts_primary_state_ids_68_def by simp

lemma ts_primary_state_ids_69_primary: "list_all primary_fixed ts_primary_state_ids_69"
  unfolding ts_primary_state_ids_69_def by simp

lemma ts_primary_state_ids_70_primary: "list_all primary_fixed ts_primary_state_ids_70"
  unfolding ts_primary_state_ids_70_def by simp

lemma ts_primary_state_ids_71_primary: "list_all primary_fixed ts_primary_state_ids_71"
  unfolding ts_primary_state_ids_71_def by simp

lemma ts_primary_state_ids_72_primary: "list_all primary_fixed ts_primary_state_ids_72"
  unfolding ts_primary_state_ids_72_def by simp

lemma ts_primary_state_ids_73_primary: "list_all primary_fixed ts_primary_state_ids_73"
  unfolding ts_primary_state_ids_73_def by simp

lemma ts_primary_state_ids_74_primary: "list_all primary_fixed ts_primary_state_ids_74"
  unfolding ts_primary_state_ids_74_def by simp

lemma ts_primary_state_ids_75_primary: "list_all primary_fixed ts_primary_state_ids_75"
  unfolding ts_primary_state_ids_75_def by simp

lemma ts_primary_state_ids_76_primary: "list_all primary_fixed ts_primary_state_ids_76"
  unfolding ts_primary_state_ids_76_def by simp

lemma ts_primary_state_ids_77_primary: "list_all primary_fixed ts_primary_state_ids_77"
  unfolding ts_primary_state_ids_77_def by simp

lemma ts_primary_state_ids_78_primary: "list_all primary_fixed ts_primary_state_ids_78"
  unfolding ts_primary_state_ids_78_def by simp

lemma ts_primary_state_ids_79_primary: "list_all primary_fixed ts_primary_state_ids_79"
  unfolding ts_primary_state_ids_79_def by simp

lemma ts_primary_state_ids_80_primary: "list_all primary_fixed ts_primary_state_ids_80"
  unfolding ts_primary_state_ids_80_def by simp

lemma ts_primary_state_ids_81_primary: "list_all primary_fixed ts_primary_state_ids_81"
  unfolding ts_primary_state_ids_81_def by simp

lemma ts_primary_state_ids_82_primary: "list_all primary_fixed ts_primary_state_ids_82"
  unfolding ts_primary_state_ids_82_def by simp

lemma ts_primary_state_ids_83_primary: "list_all primary_fixed ts_primary_state_ids_83"
  unfolding ts_primary_state_ids_83_def by simp

lemma ts_primary_state_ids_84_primary: "list_all primary_fixed ts_primary_state_ids_84"
  unfolding ts_primary_state_ids_84_def by simp

lemma ts_primary_state_ids_85_primary: "list_all primary_fixed ts_primary_state_ids_85"
  unfolding ts_primary_state_ids_85_def by simp

declare primary_fixed_facts [simp del] One_nat_def [simp]

lemma primary_runs_ok:
  "list_all (\<lambda>(j, xs). below j xs \<and> list_all primary_fixed xs) primary_runs"
  unfolding primary_runs_def
  by (simp add: primary_below
    ts_primary_state_ids_0_primary ts_primary_state_ids_1_primary ts_primary_state_ids_2_primary
    ts_primary_state_ids_3_primary ts_primary_state_ids_4_primary ts_primary_state_ids_5_primary
    ts_primary_state_ids_6_primary ts_primary_state_ids_7_primary ts_primary_state_ids_8_primary
    ts_primary_state_ids_9_primary ts_primary_state_ids_10_primary
    ts_primary_state_ids_11_primary ts_primary_state_ids_12_primary
    ts_primary_state_ids_13_primary ts_primary_state_ids_14_primary
    ts_primary_state_ids_15_primary ts_primary_state_ids_16_primary
    ts_primary_state_ids_17_primary ts_primary_state_ids_18_primary
    ts_primary_state_ids_19_primary ts_primary_state_ids_20_primary
    ts_primary_state_ids_21_primary ts_primary_state_ids_22_primary
    ts_primary_state_ids_23_primary ts_primary_state_ids_24_primary
    ts_primary_state_ids_25_primary ts_primary_state_ids_26_primary
    ts_primary_state_ids_27_primary ts_primary_state_ids_28_primary
    ts_primary_state_ids_29_primary ts_primary_state_ids_30_primary
    ts_primary_state_ids_31_primary ts_primary_state_ids_32_primary
    ts_primary_state_ids_33_primary ts_primary_state_ids_34_primary
    ts_primary_state_ids_35_primary ts_primary_state_ids_36_primary
    ts_primary_state_ids_37_primary ts_primary_state_ids_38_primary
    ts_primary_state_ids_39_primary ts_primary_state_ids_40_primary
    ts_primary_state_ids_41_primary ts_primary_state_ids_42_primary
    ts_primary_state_ids_43_primary ts_primary_state_ids_44_primary
    ts_primary_state_ids_45_primary ts_primary_state_ids_46_primary
    ts_primary_state_ids_47_primary ts_primary_state_ids_48_primary
    ts_primary_state_ids_49_primary ts_primary_state_ids_50_primary
    ts_primary_state_ids_51_primary ts_primary_state_ids_52_primary
    ts_primary_state_ids_53_primary ts_primary_state_ids_54_primary
    ts_primary_state_ids_55_primary ts_primary_state_ids_56_primary
    ts_primary_state_ids_57_primary ts_primary_state_ids_58_primary
    ts_primary_state_ids_59_primary ts_primary_state_ids_60_primary
    ts_primary_state_ids_61_primary ts_primary_state_ids_62_primary
    ts_primary_state_ids_63_primary ts_primary_state_ids_64_primary
    ts_primary_state_ids_65_primary ts_primary_state_ids_66_primary
    ts_primary_state_ids_67_primary ts_primary_state_ids_68_primary
    ts_primary_state_ids_69_primary ts_primary_state_ids_70_primary
    ts_primary_state_ids_71_primary ts_primary_state_ids_72_primary
    ts_primary_state_ids_73_primary ts_primary_state_ids_74_primary
    ts_primary_state_ids_75_primary ts_primary_state_ids_76_primary
    ts_primary_state_ids_77_primary ts_primary_state_ids_78_primary
    ts_primary_state_ids_79_primary ts_primary_state_ids_80_primary
    ts_primary_state_ids_81_primary ts_primary_state_ids_82_primary
    ts_primary_state_ids_83_primary ts_primary_state_ids_84_primary
    ts_primary_state_ids_85_primary)

lemma primary_state:
  assumes "s < STATE_COUNT"
  shows "ts_primary_state_ids ! s \<le> s \<and> primary_fixed (ts_primary_state_ids ! s)"
proof -
  from assms obtain j xs where r: "(j, xs) \<in> set primary_runs" "j \<le> s" "s < j + length xs"
    using runs_end_cover [OF primary_runs_end, of s] by (auto simp: STATE_COUNT_def)
  have at: "ts_primary_state_ids ! s = xs ! (s - j)" "s - j < length xs"
    using primary_run_nth [OF r(1), of "s - j"] r(2,3) by simp_all
  from primary_runs_ok r(1) have "below j xs" "list_all primary_fixed xs" by (auto simp: list_all_iff)
  with below_nth [of j xs "s - j"] at r(2) show ?thesis by (simp add: list_all_length)
qed

end
