(* ===== verification/Mojo_Symbols.thy ===== *)
theory Mojo_Symbols
  imports C_Arrays Mojo_Grammar "HOL-Library.List_Lexorder"
begin

text \<open>
  The tables indexed by symbols (\<^verbatim>\<open>grammars/tree-sitter-mojo/src/parser.c\<close>): the names, the public symbol
  that stands for all symbols that look the same, the metadata, and the sets of reserved words.
  Definitions only.
\<close>

section \<open>Names\<close>

definition symbol_names_0 :: "(nat \<times> string) list" where "symbol_names_0 = [
    (ts_builtin_sym_end, ''end''), (sym_identifier, ''identifier''), (anon_sym_SEMI, '';''),
    (anon_sym_import, ''import''), (anon_sym_DOT, ''.''), (anon_sym_from, ''from''),
    (anon_sym___future__tok, ''__future__''), (anon_sym_LPAREN, ''(''), (anon_sym_RPAREN, '')''),
    (anon_sym_COMMA, '',''), (anon_sym_as, ''as''), (anon_sym_STAR, ''*''),
    (anon_sym_print, ''print''), (anon_sym_GT_GT, ''>>''), (anon_sym_comptime, ''comptime''),
    (anon_sym_assert, ''assert''), (anon_sym___comptime_assert, ''__comptime_assert''),
    (anon_sym_COLON_EQ, '':=''), (anon_sym_return, ''return''), (anon_sym_del, ''del''),
    (anon_sym_raise, ''raise''), (anon_sym_pass, ''pass''), (anon_sym_break, ''break''),
    (anon_sym_continue, ''continue''), (anon_sym___extension, ''__extension''),
    (anon_sym_COLON, '':''), (anon_sym___mlir_region, ''__mlir_region''), (anon_sym_if, ''if''),
    (anon_sym_elif, ''elif''), (anon_sym_else, ''else''), (anon_sym_match, ''match''),
    (anon_sym_case, ''case''), (anon_sym_async, ''async''), (anon_sym_for, ''for''),
    (anon_sym_in, ''in''), (anon_sym_while, ''while''), (anon_sym_try, ''try''),
    (anon_sym_except, ''except''), (anon_sym_finally, ''finally''), (anon_sym_with, ''with''),
    (anon_sym_def, ''def''), (anon_sym_fn, ''fn''), (anon_sym_LBRACK, ''[''),
    (anon_sym_RBRACK, '']''), (anon_sym_DASH_GT, ''->''), (anon_sym_LBRACE, ''{''),
    (anon_sym_RBRACE, ''}''), (anon_sym_raises, ''raises''), (anon_sym_capturing, ''capturing''),
    (anon_sym_escaping, ''escaping''), (anon_sym_thin, ''thin''), (anon_sym_abi, ''abi''),
    (anon_sym__tok, ''_''), (anon_sym_STAR_STAR, ''**''), (anon_sym_global, ''global''),
    (anon_sym_nonlocal, ''nonlocal''), (anon_sym_exec, ''exec''), (anon_sym_type, ''type''),
    (anon_sym_EQ, ''=''), (anon_sym_class, ''class''), (anon_sym_struct, ''struct''),
    (anon_sym_mut, ''mut''), (anon_sym_out, ''out''), (anon_sym_SLASH_SLASH, ''//''),
    (anon_sym_trait, ''trait''), (anon_sym_inferred, ''inferred''),
    (anon_sym_except_STAR, ''except*''), (anon_sym_AT, ''@''), (anon_sym_DASH, ''-''),
    (anon_sym_PIPE, ''|''), (anon_sym_PLUS, ''+''), (anon_sym_ref, ''ref''),
    (anon_sym_borrowed, ''borrowed''), (anon_sym_inout, ''inout''), (anon_sym_owned, ''owned''),
    (anon_sym_read, ''read''), (anon_sym_var, ''var''), (anon_sym_deinit, ''deinit''),
    (anon_sym_unified, ''unified''), (anon_sym_where, ''where''), (anon_sym_self, ''self''),
    (anon_sym_CARET, ''^''), (anon_sym_not, ''not''), (anon_sym_and, ''and''),
    (anon_sym_or, ''or''), (anon_sym_SLASH, ''/''), (anon_sym_PERCENT, ''%''),
    (anon_sym_AMP, ''&''), (anon_sym_LT_LT, ''<<''), (anon_sym_TILDE, ''~''),
    (anon_sym_is, ''is''), (anon_sym_LT, ''<''), (anon_sym_LT_EQ, ''<=''),
    (anon_sym_EQ_EQ, ''==''), (anon_sym_BANG_EQ, ''!=''), (anon_sym_GT_EQ, ''>=''),
    (anon_sym_GT, ''>''), (anon_sym_LT_GT, ''<>''), (anon_sym_lambda, ''lambda''),
    (anon_sym_PLUS_EQ, ''+=''), (anon_sym_DASH_EQ, ''-=''), (anon_sym_STAR_EQ, ''*=''),
    (anon_sym_SLASH_EQ, ''/=''), (anon_sym_AT_EQ, ''@=''), (anon_sym_SLASH_SLASH_EQ, ''//=''),
    (anon_sym_PERCENT_EQ, ''%=''), (anon_sym_STAR_STAR_EQ, ''**=''), (anon_sym_GT_GT_EQ, ''>>=''),
    (anon_sym_LT_LT_EQ, ''<<=''), (anon_sym_AMP_EQ, ''&=''), (anon_sym_CARET_EQ, ''^=''),
    (anon_sym_PIPE_EQ, ''|=''), (anon_sym_yield, ''yield''), (sym_ellipsis, ''ellipsis''),
    (anon_sym___mlir_type, ''__mlir_type''), (sym_escape_sequence, ''escape_sequence''),
    (anon_sym_BSLASH, [CHR 0x5C]), (aux_sym_format_specifier_token1, ''format_specifier_token1''),
    (sym_type_conversion, ''type_conversion''), (sym_integer, ''integer''), (sym_float, ''float''),
    (anon_sym_await, ''await''), (sym_true, ''true''), (sym_false, ''false''),
    (sym_none, ''none''), (sym_comment, ''comment''),
    (sym_line_continuation, ''line_continuation''), (sym__newline, ''_newline''),
    (sym__indent, ''_indent''), (sym__dedent, ''_dedent''), (sym_string_start, ''string_start''),
    (sym__string_content, ''_string_content''),
    (sym_escape_interpolation, ''escape_interpolation''), (sym_string_end, ''string_end''),
    (sym__mlir_backtick, ''_mlir_backtick''), (sym__mlir_ident, ''type''),
    (sym__mlir_number, ''integer''), (sym_mlir_punctuation, ''mlir_punctuation''),
    (sym_module, ''module''), (sym__statement, ''_statement''),
    (sym__simple_statements, ''_simple_statements''), (sym_import_statement, ''import_statement''),
    (sym_import_prefix, ''import_prefix''), (sym_relative_import, ''relative_import''),
    (sym_future_import_statement, ''future_import_statement''),
    (sym_import_from_statement, ''import_from_statement''), (sym__import_list, ''_import_list''),
    (sym_aliased_import, ''aliased_import''), (sym_wildcard_import, ''wildcard_import''),
    (sym_print_statement, ''print_statement'')]"

definition symbol_names_1 :: "(nat \<times> string) list" where "symbol_names_1 = [
    (sym_chevron, ''chevron''), (sym_assert_statement, ''assert_statement''),
    (sym_comptime_assert_statement, ''comptime_assert_statement''),
    (sym_expression_statement, ''expression_statement''),
    (sym_tuple_expression, ''tuple_expression''), (sym_named_expression, ''named_expression''),
    (sym__named_expression_lhs, ''_named_expression_lhs''),
    (sym_return_statement, ''return_statement''), (sym_delete_statement, ''delete_statement''),
    (sym_raise_statement, ''raise_statement''), (sym_pass_statement, ''pass_statement''),
    (sym_break_statement, ''break_statement''), (sym_continue_statement, ''continue_statement''),
    (sym_extension_definition, ''extension_definition''), (sym_mlir_region, ''mlir_region''),
    (sym_comptime_statement, ''comptime_statement''), (sym_if_statement, ''if_statement''),
    (sym_elif_clause, ''elif_clause''), (sym_else_clause, ''else_clause''),
    (sym_match_statement, ''match_statement''), (sym__match_block, ''block''),
    (sym_case_clause, ''case_clause''), (sym_for_statement, ''for_statement''),
    (sym_while_statement, ''while_statement''), (sym_try_statement, ''try_statement''),
    (sym_except_clause, ''except_clause''), (sym_finally_clause, ''finally_clause''),
    (sym_with_statement, ''with_statement''), (sym_with_clause, ''with_clause''),
    (sym_with_item, ''with_item''), (sym_function_definition, ''function_definition''),
    (sym_result_convention, ''result_convention''),
    (aux_sym__function_effects, ''_function_effects''), (sym_abi_specifier, ''abi_specifier''),
    (sym__raises_type, ''type''), (sym_capture_list, ''capture_list''),
    (sym_wildcard_origin, ''wildcard_origin''), (sym_parameters, ''parameters''),
    (sym_lambda_parameters, ''lambda_parameters''), (sym_list_splat, ''list_splat''),
    (sym_dictionary_splat, ''dictionary_splat''), (sym_global_statement, ''global_statement''),
    (sym_nonlocal_statement, ''nonlocal_statement''), (sym_exec_statement, ''exec_statement''),
    (sym_type_alias_statement, ''type_alias_statement''),
    (sym_parameterized_alias_statement, ''parameterized_alias_statement''),
    (sym_class_definition, ''class_definition''), (sym_superclass_list, ''argument_list''),
    (sym_type_parameter, ''type_parameter''),
    (sym__type_parameter_default, ''_type_parameter_default''),
    (sym_infer_separator, ''infer_separator''), (sym_trait_definition, ''trait_definition''),
    (sym_trait_list, ''trait_list''), (sym_parenthesized_list_splat, ''parenthesized_list_splat''),
    (sym_argument_list, ''argument_list''), (sym_parameter_list, ''parameter_list''),
    (sym_decorated_definition, ''decorated_definition''),
    (sym_except_group_clause, ''except_group_clause''), (sym_decorator, ''decorator''),
    (sym_block, ''block''), (sym_expression_list, ''expression_list''),
    (sym_dotted_name, ''dotted_name''), (sym_case_pattern, ''case_pattern''),
    (sym__simple_pattern, ''_simple_pattern''), (sym__as_pattern, ''as_pattern''),
    (sym_union_pattern, ''union_pattern''), (sym__list_pattern, ''list_pattern''),
    (sym__tuple_pattern, ''tuple_pattern''), (sym_dict_pattern, ''dict_pattern''),
    (sym__key_value_pattern, ''_key_value_pattern''), (sym_keyword_pattern, ''keyword_pattern''),
    (sym_splat_pattern, ''splat_pattern''), (sym_class_pattern, ''class_pattern''),
    (sym_complex_pattern, ''complex_pattern''), (sym__parameters, ''_parameters''),
    (sym__patterns, ''_patterns''), (sym_parameter, ''parameter''), (sym_pattern, ''pattern''),
    (sym_tuple_pattern, ''tuple_pattern''), (sym_list_pattern, ''list_pattern''),
    (sym__ref_convention, ''_ref_convention''), (sym_argument_convention, ''argument_convention''),
    (sym_unified_clause, ''unified_clause''), (sym_where_clause, ''where_clause''),
    (sym_self_parameter, ''self_parameter''), (sym_typed_parameter, ''typed_parameter''),
    (sym_default_parameter, ''default_parameter''),
    (sym_typed_default_parameter, ''typed_default_parameter''),
    (sym_list_splat_pattern, ''list_splat_pattern''),
    (sym_dictionary_splat_pattern, ''dictionary_splat_pattern''), (sym_as_pattern, ''as_pattern''),
    (sym__expression_within_for_in_clause, ''_expression_within_for_in_clause''),
    (sym_expression, ''expression''), (sym_primary_expression, ''primary_expression''),
    (sym_comptime_expression, ''comptime_expression''),
    (sym_transfer_expression, ''transfer_expression''), (sym_not_operator, ''not_operator''),
    (sym_boolean_operator, ''boolean_operator''), (sym_binary_operator, ''binary_operator''),
    (sym_unary_operator, ''unary_operator''), (sym__not_in, ''not in''), (sym__is_not, ''is not''),
    (sym_comparison_operator, ''comparison_operator''), (sym_lambda, ''lambda''),
    (sym_lambda_within_for_in_clause, ''lambda''), (sym_assignment, ''assignment''),
    (sym_augmented_assignment, ''augmented_assignment''), (sym_pattern_list, ''pattern_list''),
    (sym__right_hand_side, ''_right_hand_side''), (sym_yield, ''yield''),
    (sym_attribute, ''attribute''), (sym_subscript, ''subscript''), (sym_slice, ''slice''),
    (sym_call, ''call''), (sym_type, ''type''), (sym_called_type, ''called_type''),
    (sym_function_type, ''function_type''), (sym_splat_type, ''splat_type''),
    (sym_generic_type, ''generic_type''), (sym_union_type, ''union_type''),
    (sym_intersection_type, ''intersection_type''),
    (sym__intersection_operand, ''_intersection_operand''),
    (sym_constrained_type, ''constrained_type''), (sym_member_type, ''member_type''),
    (sym_slice_keyword_argument, ''keyword_argument''),
    (sym_keyword_argument, ''keyword_argument''), (sym_mlir_fragment, ''mlir_fragment''),
    (sym_mlir_type, ''mlir_type''), (sym_list, ''list''), (sym_set, ''set''),
    (sym_tuple, ''tuple''), (sym_dictionary, ''dictionary''), (sym_pair, ''pair''),
    (sym_struct_literal, ''struct_literal''), (sym_struct_literal_field, ''struct_literal_field''),
    (sym_list_comprehension, ''list_comprehension''),
    (sym_dictionary_comprehension, ''dictionary_comprehension''),
    (sym_set_comprehension, ''set_comprehension''),
    (sym_generator_expression, ''generator_expression''),
    (sym__comprehension_clauses, ''_comprehension_clauses''),
    (sym_parenthesized_expression, ''parenthesized_expression''),
    (sym__collection_elements, ''_collection_elements''), (sym_for_in_clause, ''for_in_clause''),
    (sym_if_clause, ''if_clause''), (sym_conditional_expression, ''conditional_expression''),
    (sym_concatenated_string, ''concatenated_string''), (sym_string, ''string''),
    (sym_string_content, ''string_content''), (sym_interpolation, ''interpolation''),
    (sym__f_expression, ''_f_expression'')]"

definition symbol_names_2 :: "(nat \<times> string) list" where "symbol_names_2 = [
    (sym__not_escape_sequence, ''_not_escape_sequence''),
    (sym_format_specifier, ''format_specifier''), (sym_await, ''await''),
    (sym_positional_separator, ''positional_separator''),
    (sym_keyword_separator, ''keyword_separator''), (aux_sym_module_repeat1, ''module_repeat1''),
    (aux_sym__simple_statements_repeat1, ''_simple_statements_repeat1''),
    (aux_sym_import_prefix_repeat1, ''import_prefix_repeat1''),
    (aux_sym__import_list_repeat1, ''_import_list_repeat1''),
    (aux_sym_print_statement_repeat1, ''print_statement_repeat1''),
    (aux_sym_assert_statement_repeat1, ''assert_statement_repeat1''),
    (aux_sym_if_statement_repeat1, ''if_statement_repeat1''),
    (aux_sym_match_statement_repeat1, ''match_statement_repeat1''),
    (aux_sym__match_block_repeat1, ''_match_block_repeat1''),
    (aux_sym_case_clause_repeat1, ''case_clause_repeat1''),
    (aux_sym_try_statement_repeat1, ''try_statement_repeat1''),
    (aux_sym_try_statement_repeat2, ''try_statement_repeat2''),
    (aux_sym_with_clause_repeat1, ''with_clause_repeat1''),
    (aux_sym_function_definition_repeat1, ''function_definition_repeat1''),
    (aux_sym_result_convention_repeat1, ''result_convention_repeat1''),
    (aux_sym_capture_list_repeat1, ''capture_list_repeat1''),
    (aux_sym_global_statement_repeat1, ''global_statement_repeat1''),
    (aux_sym_superclass_list_repeat1, ''superclass_list_repeat1''),
    (aux_sym_type_parameter_repeat1, ''type_parameter_repeat1''),
    (aux_sym_argument_list_repeat1, ''argument_list_repeat1''),
    (aux_sym_parameter_list_repeat1, ''parameter_list_repeat1''),
    (aux_sym_decorated_definition_repeat1, ''decorated_definition_repeat1''),
    (aux_sym_dotted_name_repeat1, ''dotted_name_repeat1''),
    (aux_sym_union_pattern_repeat1, ''union_pattern_repeat1''),
    (aux_sym_dict_pattern_repeat1, ''dict_pattern_repeat1''),
    (aux_sym__parameters_repeat1, ''_parameters_repeat1''),
    (aux_sym__patterns_repeat1, ''_patterns_repeat1''),
    (aux_sym_unified_clause_repeat1, ''unified_clause_repeat1''),
    (aux_sym_comparison_operator_repeat1, ''comparison_operator_repeat1''),
    (aux_sym_subscript_repeat1, ''subscript_repeat1''),
    (aux_sym_called_type_repeat1, ''called_type_repeat1''),
    (aux_sym_function_type_repeat1, ''function_type_repeat1''),
    (aux_sym_intersection_type_repeat1, ''intersection_type_repeat1''),
    (aux_sym_mlir_fragment_repeat1, ''mlir_fragment_repeat1''),
    (aux_sym_dictionary_repeat1, ''dictionary_repeat1''),
    (aux_sym_struct_literal_repeat1, ''struct_literal_repeat1''),
    (aux_sym__comprehension_clauses_repeat1, ''_comprehension_clauses_repeat1''),
    (aux_sym__collection_elements_repeat1, ''_collection_elements_repeat1''),
    (aux_sym_for_in_clause_repeat1, ''for_in_clause_repeat1''),
    (aux_sym_concatenated_string_repeat1, ''concatenated_string_repeat1''),
    (aux_sym_string_repeat1, ''string_repeat1''),
    (aux_sym_string_content_repeat1, ''string_content_repeat1''),
    (aux_sym_format_specifier_repeat1, ''format_specifier_repeat1''),
    (alias_sym_as_pattern_target, ''as_pattern_target''),
    (alias_sym_format_expression, ''format_expression'')]"

definition symbol_name_rows :: "(nat \<times> string) list" where
  "symbol_name_rows = concat [
    symbol_names_0, symbol_names_1, symbol_names_2]"

definition ts_symbol_names :: "string list" where
  "ts_symbol_names = designated '''' (SYMBOL_COUNT + ALIAS_COUNT) symbol_name_rows"

section \<open>Public symbols\<close>

definition symbol_map_0 :: "(nat \<times> nat) list" where "symbol_map_0 = [
    (ts_builtin_sym_end, ts_builtin_sym_end), (sym_identifier, sym_identifier),
    (anon_sym_SEMI, anon_sym_SEMI), (anon_sym_import, anon_sym_import),
    (anon_sym_DOT, anon_sym_DOT), (anon_sym_from, anon_sym_from),
    (anon_sym___future__tok, anon_sym___future__tok), (anon_sym_LPAREN, anon_sym_LPAREN),
    (anon_sym_RPAREN, anon_sym_RPAREN), (anon_sym_COMMA, anon_sym_COMMA),
    (anon_sym_as, anon_sym_as), (anon_sym_STAR, anon_sym_STAR), (anon_sym_print, anon_sym_print),
    (anon_sym_GT_GT, anon_sym_GT_GT), (anon_sym_comptime, anon_sym_comptime),
    (anon_sym_assert, anon_sym_assert), (anon_sym___comptime_assert, anon_sym___comptime_assert),
    (anon_sym_COLON_EQ, anon_sym_COLON_EQ), (anon_sym_return, anon_sym_return),
    (anon_sym_del, anon_sym_del), (anon_sym_raise, anon_sym_raise), (anon_sym_pass, anon_sym_pass),
    (anon_sym_break, anon_sym_break), (anon_sym_continue, anon_sym_continue),
    (anon_sym___extension, anon_sym___extension), (anon_sym_COLON, anon_sym_COLON),
    (anon_sym___mlir_region, anon_sym___mlir_region), (anon_sym_if, anon_sym_if),
    (anon_sym_elif, anon_sym_elif), (anon_sym_else, anon_sym_else),
    (anon_sym_match, anon_sym_match), (anon_sym_case, anon_sym_case),
    (anon_sym_async, anon_sym_async), (anon_sym_for, anon_sym_for), (anon_sym_in, anon_sym_in),
    (anon_sym_while, anon_sym_while), (anon_sym_try, anon_sym_try),
    (anon_sym_except, anon_sym_except), (anon_sym_finally, anon_sym_finally),
    (anon_sym_with, anon_sym_with), (anon_sym_def, anon_sym_def), (anon_sym_fn, anon_sym_fn),
    (anon_sym_LBRACK, anon_sym_LBRACK), (anon_sym_RBRACK, anon_sym_RBRACK),
    (anon_sym_DASH_GT, anon_sym_DASH_GT), (anon_sym_LBRACE, anon_sym_LBRACE),
    (anon_sym_RBRACE, anon_sym_RBRACE), (anon_sym_raises, anon_sym_raises),
    (anon_sym_capturing, anon_sym_capturing), (anon_sym_escaping, anon_sym_escaping),
    (anon_sym_thin, anon_sym_thin), (anon_sym_abi, anon_sym_abi), (anon_sym__tok, anon_sym__tok),
    (anon_sym_STAR_STAR, anon_sym_STAR_STAR), (anon_sym_global, anon_sym_global),
    (anon_sym_nonlocal, anon_sym_nonlocal), (anon_sym_exec, anon_sym_exec),
    (anon_sym_type, anon_sym_type), (anon_sym_EQ, anon_sym_EQ), (anon_sym_class, anon_sym_class),
    (anon_sym_struct, anon_sym_struct), (anon_sym_mut, anon_sym_mut), (anon_sym_out, anon_sym_out),
    (anon_sym_SLASH_SLASH, anon_sym_SLASH_SLASH), (anon_sym_trait, anon_sym_trait),
    (anon_sym_inferred, anon_sym_inferred), (anon_sym_except_STAR, anon_sym_except_STAR),
    (anon_sym_AT, anon_sym_AT), (anon_sym_DASH, anon_sym_DASH), (anon_sym_PIPE, anon_sym_PIPE),
    (anon_sym_PLUS, anon_sym_PLUS), (anon_sym_ref, anon_sym_ref),
    (anon_sym_borrowed, anon_sym_borrowed), (anon_sym_inout, anon_sym_inout),
    (anon_sym_owned, anon_sym_owned), (anon_sym_read, anon_sym_read), (anon_sym_var, anon_sym_var),
    (anon_sym_deinit, anon_sym_deinit), (anon_sym_unified, anon_sym_unified),
    (anon_sym_where, anon_sym_where), (anon_sym_self, anon_sym_self),
    (anon_sym_CARET, anon_sym_CARET), (anon_sym_not, anon_sym_not), (anon_sym_and, anon_sym_and),
    (anon_sym_or, anon_sym_or), (anon_sym_SLASH, anon_sym_SLASH),
    (anon_sym_PERCENT, anon_sym_PERCENT), (anon_sym_AMP, anon_sym_AMP),
    (anon_sym_LT_LT, anon_sym_LT_LT), (anon_sym_TILDE, anon_sym_TILDE), (anon_sym_is, anon_sym_is),
    (anon_sym_LT, anon_sym_LT), (anon_sym_LT_EQ, anon_sym_LT_EQ), (anon_sym_EQ_EQ, anon_sym_EQ_EQ),
    (anon_sym_BANG_EQ, anon_sym_BANG_EQ), (anon_sym_GT_EQ, anon_sym_GT_EQ),
    (anon_sym_GT, anon_sym_GT), (anon_sym_LT_GT, anon_sym_LT_GT),
    (anon_sym_lambda, anon_sym_lambda), (anon_sym_PLUS_EQ, anon_sym_PLUS_EQ),
    (anon_sym_DASH_EQ, anon_sym_DASH_EQ), (anon_sym_STAR_EQ, anon_sym_STAR_EQ),
    (anon_sym_SLASH_EQ, anon_sym_SLASH_EQ), (anon_sym_AT_EQ, anon_sym_AT_EQ),
    (anon_sym_SLASH_SLASH_EQ, anon_sym_SLASH_SLASH_EQ), (anon_sym_PERCENT_EQ, anon_sym_PERCENT_EQ),
    (anon_sym_STAR_STAR_EQ, anon_sym_STAR_STAR_EQ), (anon_sym_GT_GT_EQ, anon_sym_GT_GT_EQ),
    (anon_sym_LT_LT_EQ, anon_sym_LT_LT_EQ), (anon_sym_AMP_EQ, anon_sym_AMP_EQ),
    (anon_sym_CARET_EQ, anon_sym_CARET_EQ), (anon_sym_PIPE_EQ, anon_sym_PIPE_EQ),
    (anon_sym_yield, anon_sym_yield), (sym_ellipsis, sym_ellipsis),
    (anon_sym___mlir_type, anon_sym___mlir_type), (sym_escape_sequence, sym_escape_sequence),
    (anon_sym_BSLASH, anon_sym_BSLASH),
    (aux_sym_format_specifier_token1, aux_sym_format_specifier_token1),
    (sym_type_conversion, sym_type_conversion), (sym_integer, sym_integer), (sym_float, sym_float),
    (anon_sym_await, anon_sym_await), (sym_true, sym_true), (sym_false, sym_false),
    (sym_none, sym_none), (sym_comment, sym_comment),
    (sym_line_continuation, sym_line_continuation), (sym__newline, sym__newline),
    (sym__indent, sym__indent), (sym__dedent, sym__dedent), (sym_string_start, sym_string_start),
    (sym__string_content, sym__string_content),
    (sym_escape_interpolation, sym_escape_interpolation), (sym_string_end, sym_string_end),
    (sym__mlir_backtick, sym__mlir_backtick), (sym__mlir_ident, sym_type),
    (sym__mlir_number, sym_integer), (sym_mlir_punctuation, sym_mlir_punctuation),
    (sym_module, sym_module), (sym__statement, sym__statement),
    (sym__simple_statements, sym__simple_statements), (sym_import_statement, sym_import_statement),
    (sym_import_prefix, sym_import_prefix), (sym_relative_import, sym_relative_import),
    (sym_future_import_statement, sym_future_import_statement),
    (sym_import_from_statement, sym_import_from_statement), (sym__import_list, sym__import_list),
    (sym_aliased_import, sym_aliased_import), (sym_wildcard_import, sym_wildcard_import),
    (sym_print_statement, sym_print_statement)]"

definition symbol_map_1 :: "(nat \<times> nat) list" where "symbol_map_1 = [
    (sym_chevron, sym_chevron), (sym_assert_statement, sym_assert_statement),
    (sym_comptime_assert_statement, sym_comptime_assert_statement),
    (sym_expression_statement, sym_expression_statement),
    (sym_tuple_expression, sym_tuple_expression), (sym_named_expression, sym_named_expression),
    (sym__named_expression_lhs, sym__named_expression_lhs),
    (sym_return_statement, sym_return_statement), (sym_delete_statement, sym_delete_statement),
    (sym_raise_statement, sym_raise_statement), (sym_pass_statement, sym_pass_statement),
    (sym_break_statement, sym_break_statement), (sym_continue_statement, sym_continue_statement),
    (sym_extension_definition, sym_extension_definition), (sym_mlir_region, sym_mlir_region),
    (sym_comptime_statement, sym_comptime_statement), (sym_if_statement, sym_if_statement),
    (sym_elif_clause, sym_elif_clause), (sym_else_clause, sym_else_clause),
    (sym_match_statement, sym_match_statement), (sym__match_block, sym_block),
    (sym_case_clause, sym_case_clause), (sym_for_statement, sym_for_statement),
    (sym_while_statement, sym_while_statement), (sym_try_statement, sym_try_statement),
    (sym_except_clause, sym_except_clause), (sym_finally_clause, sym_finally_clause),
    (sym_with_statement, sym_with_statement), (sym_with_clause, sym_with_clause),
    (sym_with_item, sym_with_item), (sym_function_definition, sym_function_definition),
    (sym_result_convention, sym_result_convention),
    (aux_sym__function_effects, aux_sym__function_effects), (sym_abi_specifier, sym_abi_specifier),
    (sym__raises_type, sym_type), (sym_capture_list, sym_capture_list),
    (sym_wildcard_origin, sym_wildcard_origin), (sym_parameters, sym_parameters),
    (sym_lambda_parameters, sym_lambda_parameters), (sym_list_splat, sym_list_splat),
    (sym_dictionary_splat, sym_dictionary_splat), (sym_global_statement, sym_global_statement),
    (sym_nonlocal_statement, sym_nonlocal_statement), (sym_exec_statement, sym_exec_statement),
    (sym_type_alias_statement, sym_type_alias_statement),
    (sym_parameterized_alias_statement, sym_parameterized_alias_statement),
    (sym_class_definition, sym_class_definition), (sym_superclass_list, sym_argument_list),
    (sym_type_parameter, sym_type_parameter),
    (sym__type_parameter_default, sym__type_parameter_default),
    (sym_infer_separator, sym_infer_separator), (sym_trait_definition, sym_trait_definition),
    (sym_trait_list, sym_trait_list), (sym_parenthesized_list_splat, sym_parenthesized_list_splat),
    (sym_argument_list, sym_argument_list), (sym_parameter_list, sym_parameter_list),
    (sym_decorated_definition, sym_decorated_definition),
    (sym_except_group_clause, sym_except_group_clause), (sym_decorator, sym_decorator),
    (sym_block, sym_block), (sym_expression_list, sym_expression_list),
    (sym_dotted_name, sym_dotted_name), (sym_case_pattern, sym_case_pattern),
    (sym__simple_pattern, sym__simple_pattern), (sym__as_pattern, sym_as_pattern),
    (sym_union_pattern, sym_union_pattern), (sym__list_pattern, sym_list_pattern),
    (sym__tuple_pattern, sym_tuple_pattern), (sym_dict_pattern, sym_dict_pattern),
    (sym__key_value_pattern, sym__key_value_pattern), (sym_keyword_pattern, sym_keyword_pattern),
    (sym_splat_pattern, sym_splat_pattern), (sym_class_pattern, sym_class_pattern),
    (sym_complex_pattern, sym_complex_pattern), (sym__parameters, sym__parameters),
    (sym__patterns, sym__patterns), (sym_parameter, sym_parameter), (sym_pattern, sym_pattern),
    (sym_tuple_pattern, sym_tuple_pattern), (sym_list_pattern, sym_list_pattern),
    (sym__ref_convention, sym__ref_convention), (sym_argument_convention, sym_argument_convention),
    (sym_unified_clause, sym_unified_clause), (sym_where_clause, sym_where_clause),
    (sym_self_parameter, sym_self_parameter), (sym_typed_parameter, sym_typed_parameter),
    (sym_default_parameter, sym_default_parameter),
    (sym_typed_default_parameter, sym_typed_default_parameter),
    (sym_list_splat_pattern, sym_list_splat_pattern),
    (sym_dictionary_splat_pattern, sym_dictionary_splat_pattern), (sym_as_pattern, sym_as_pattern),
    (sym__expression_within_for_in_clause, sym__expression_within_for_in_clause),
    (sym_expression, sym_expression), (sym_primary_expression, sym_primary_expression),
    (sym_comptime_expression, sym_comptime_expression),
    (sym_transfer_expression, sym_transfer_expression), (sym_not_operator, sym_not_operator),
    (sym_boolean_operator, sym_boolean_operator), (sym_binary_operator, sym_binary_operator),
    (sym_unary_operator, sym_unary_operator), (sym__not_in, sym__not_in),
    (sym__is_not, sym__is_not), (sym_comparison_operator, sym_comparison_operator),
    (sym_lambda, sym_lambda), (sym_lambda_within_for_in_clause, sym_lambda),
    (sym_assignment, sym_assignment), (sym_augmented_assignment, sym_augmented_assignment),
    (sym_pattern_list, sym_pattern_list), (sym__right_hand_side, sym__right_hand_side),
    (sym_yield, sym_yield), (sym_attribute, sym_attribute), (sym_subscript, sym_subscript),
    (sym_slice, sym_slice), (sym_call, sym_call), (sym_type, sym_type),
    (sym_called_type, sym_called_type), (sym_function_type, sym_function_type),
    (sym_splat_type, sym_splat_type), (sym_generic_type, sym_generic_type),
    (sym_union_type, sym_union_type), (sym_intersection_type, sym_intersection_type),
    (sym__intersection_operand, sym__intersection_operand),
    (sym_constrained_type, sym_constrained_type), (sym_member_type, sym_member_type),
    (sym_slice_keyword_argument, sym_keyword_argument),
    (sym_keyword_argument, sym_keyword_argument), (sym_mlir_fragment, sym_mlir_fragment),
    (sym_mlir_type, sym_mlir_type), (sym_list, sym_list), (sym_set, sym_set),
    (sym_tuple, sym_tuple), (sym_dictionary, sym_dictionary), (sym_pair, sym_pair),
    (sym_struct_literal, sym_struct_literal), (sym_struct_literal_field, sym_struct_literal_field),
    (sym_list_comprehension, sym_list_comprehension),
    (sym_dictionary_comprehension, sym_dictionary_comprehension),
    (sym_set_comprehension, sym_set_comprehension),
    (sym_generator_expression, sym_generator_expression),
    (sym__comprehension_clauses, sym__comprehension_clauses),
    (sym_parenthesized_expression, sym_parenthesized_expression),
    (sym__collection_elements, sym__collection_elements), (sym_for_in_clause, sym_for_in_clause),
    (sym_if_clause, sym_if_clause), (sym_conditional_expression, sym_conditional_expression),
    (sym_concatenated_string, sym_concatenated_string), (sym_string, sym_string),
    (sym_string_content, sym_string_content), (sym_interpolation, sym_interpolation),
    (sym__f_expression, sym__f_expression)]"

definition symbol_map_2 :: "(nat \<times> nat) list" where "symbol_map_2 = [
    (sym__not_escape_sequence, sym__not_escape_sequence),
    (sym_format_specifier, sym_format_specifier), (sym_await, sym_await),
    (sym_positional_separator, sym_positional_separator),
    (sym_keyword_separator, sym_keyword_separator),
    (aux_sym_module_repeat1, aux_sym_module_repeat1),
    (aux_sym__simple_statements_repeat1, aux_sym__simple_statements_repeat1),
    (aux_sym_import_prefix_repeat1, aux_sym_import_prefix_repeat1),
    (aux_sym__import_list_repeat1, aux_sym__import_list_repeat1),
    (aux_sym_print_statement_repeat1, aux_sym_print_statement_repeat1),
    (aux_sym_assert_statement_repeat1, aux_sym_assert_statement_repeat1),
    (aux_sym_if_statement_repeat1, aux_sym_if_statement_repeat1),
    (aux_sym_match_statement_repeat1, aux_sym_match_statement_repeat1),
    (aux_sym__match_block_repeat1, aux_sym__match_block_repeat1),
    (aux_sym_case_clause_repeat1, aux_sym_case_clause_repeat1),
    (aux_sym_try_statement_repeat1, aux_sym_try_statement_repeat1),
    (aux_sym_try_statement_repeat2, aux_sym_try_statement_repeat2),
    (aux_sym_with_clause_repeat1, aux_sym_with_clause_repeat1),
    (aux_sym_function_definition_repeat1, aux_sym_function_definition_repeat1),
    (aux_sym_result_convention_repeat1, aux_sym_result_convention_repeat1),
    (aux_sym_capture_list_repeat1, aux_sym_capture_list_repeat1),
    (aux_sym_global_statement_repeat1, aux_sym_global_statement_repeat1),
    (aux_sym_superclass_list_repeat1, aux_sym_superclass_list_repeat1),
    (aux_sym_type_parameter_repeat1, aux_sym_type_parameter_repeat1),
    (aux_sym_argument_list_repeat1, aux_sym_argument_list_repeat1),
    (aux_sym_parameter_list_repeat1, aux_sym_parameter_list_repeat1),
    (aux_sym_decorated_definition_repeat1, aux_sym_decorated_definition_repeat1),
    (aux_sym_dotted_name_repeat1, aux_sym_dotted_name_repeat1),
    (aux_sym_union_pattern_repeat1, aux_sym_union_pattern_repeat1),
    (aux_sym_dict_pattern_repeat1, aux_sym_dict_pattern_repeat1),
    (aux_sym__parameters_repeat1, aux_sym__parameters_repeat1),
    (aux_sym__patterns_repeat1, aux_sym__patterns_repeat1),
    (aux_sym_unified_clause_repeat1, aux_sym_unified_clause_repeat1),
    (aux_sym_comparison_operator_repeat1, aux_sym_comparison_operator_repeat1),
    (aux_sym_subscript_repeat1, aux_sym_subscript_repeat1),
    (aux_sym_called_type_repeat1, aux_sym_called_type_repeat1),
    (aux_sym_function_type_repeat1, aux_sym_function_type_repeat1),
    (aux_sym_intersection_type_repeat1, aux_sym_intersection_type_repeat1),
    (aux_sym_mlir_fragment_repeat1, aux_sym_mlir_fragment_repeat1),
    (aux_sym_dictionary_repeat1, aux_sym_dictionary_repeat1),
    (aux_sym_struct_literal_repeat1, aux_sym_struct_literal_repeat1),
    (aux_sym__comprehension_clauses_repeat1, aux_sym__comprehension_clauses_repeat1),
    (aux_sym__collection_elements_repeat1, aux_sym__collection_elements_repeat1),
    (aux_sym_for_in_clause_repeat1, aux_sym_for_in_clause_repeat1),
    (aux_sym_concatenated_string_repeat1, aux_sym_concatenated_string_repeat1),
    (aux_sym_string_repeat1, aux_sym_string_repeat1),
    (aux_sym_string_content_repeat1, aux_sym_string_content_repeat1),
    (aux_sym_format_specifier_repeat1, aux_sym_format_specifier_repeat1),
    (alias_sym_as_pattern_target, alias_sym_as_pattern_target),
    (alias_sym_format_expression, alias_sym_format_expression)]"

definition symbol_map_rows :: "(nat \<times> nat) list" where
  "symbol_map_rows = concat [
    symbol_map_0, symbol_map_1, symbol_map_2]"

definition ts_symbol_map :: "nat list" where
  "ts_symbol_map = designated 0 (SYMBOL_COUNT + ALIAS_COUNT) symbol_map_rows"

section \<open>Metadata\<close>

record TSSymbolMetadata =
  visible :: bool
  named :: bool
  supertype :: bool

definition symbol_metadata :: "bool \<Rightarrow> bool \<Rightarrow> bool \<Rightarrow> TSSymbolMetadata" where
  "symbol_metadata v n s = \<lparr>visible = v, named = n, supertype = s\<rparr>"

definition symbol_metadata_0 :: "(nat \<times> TSSymbolMetadata) list" where "symbol_metadata_0 = [
    (ts_builtin_sym_end, symbol_metadata False True False),
    (sym_identifier, symbol_metadata True True False),
    (anon_sym_SEMI, symbol_metadata True False False),
    (anon_sym_import, symbol_metadata True False False),
    (anon_sym_DOT, symbol_metadata True False False),
    (anon_sym_from, symbol_metadata True False False),
    (anon_sym___future__tok, symbol_metadata True False False),
    (anon_sym_LPAREN, symbol_metadata True False False),
    (anon_sym_RPAREN, symbol_metadata True False False),
    (anon_sym_COMMA, symbol_metadata True False False),
    (anon_sym_as, symbol_metadata True False False),
    (anon_sym_STAR, symbol_metadata True False False),
    (anon_sym_print, symbol_metadata True False False),
    (anon_sym_GT_GT, symbol_metadata True False False),
    (anon_sym_comptime, symbol_metadata True False False),
    (anon_sym_assert, symbol_metadata True False False),
    (anon_sym___comptime_assert, symbol_metadata True False False),
    (anon_sym_COLON_EQ, symbol_metadata True False False),
    (anon_sym_return, symbol_metadata True False False),
    (anon_sym_del, symbol_metadata True False False),
    (anon_sym_raise, symbol_metadata True False False),
    (anon_sym_pass, symbol_metadata True False False),
    (anon_sym_break, symbol_metadata True False False),
    (anon_sym_continue, symbol_metadata True False False),
    (anon_sym___extension, symbol_metadata True False False),
    (anon_sym_COLON, symbol_metadata True False False),
    (anon_sym___mlir_region, symbol_metadata True False False),
    (anon_sym_if, symbol_metadata True False False),
    (anon_sym_elif, symbol_metadata True False False),
    (anon_sym_else, symbol_metadata True False False),
    (anon_sym_match, symbol_metadata True False False),
    (anon_sym_case, symbol_metadata True False False),
    (anon_sym_async, symbol_metadata True False False),
    (anon_sym_for, symbol_metadata True False False),
    (anon_sym_in, symbol_metadata True False False),
    (anon_sym_while, symbol_metadata True False False),
    (anon_sym_try, symbol_metadata True False False)]"

definition symbol_metadata_1 :: "(nat \<times> TSSymbolMetadata) list" where "symbol_metadata_1 = [
    (anon_sym_except, symbol_metadata True False False),
    (anon_sym_finally, symbol_metadata True False False),
    (anon_sym_with, symbol_metadata True False False),
    (anon_sym_def, symbol_metadata True False False),
    (anon_sym_fn, symbol_metadata True False False),
    (anon_sym_LBRACK, symbol_metadata True False False),
    (anon_sym_RBRACK, symbol_metadata True False False),
    (anon_sym_DASH_GT, symbol_metadata True False False),
    (anon_sym_LBRACE, symbol_metadata True False False),
    (anon_sym_RBRACE, symbol_metadata True False False),
    (anon_sym_raises, symbol_metadata True False False),
    (anon_sym_capturing, symbol_metadata True False False),
    (anon_sym_escaping, symbol_metadata True False False),
    (anon_sym_thin, symbol_metadata True False False),
    (anon_sym_abi, symbol_metadata True False False),
    (anon_sym__tok, symbol_metadata True False False),
    (anon_sym_STAR_STAR, symbol_metadata True False False),
    (anon_sym_global, symbol_metadata True False False),
    (anon_sym_nonlocal, symbol_metadata True False False),
    (anon_sym_exec, symbol_metadata True False False),
    (anon_sym_type, symbol_metadata True False False),
    (anon_sym_EQ, symbol_metadata True False False),
    (anon_sym_class, symbol_metadata True False False),
    (anon_sym_struct, symbol_metadata True False False),
    (anon_sym_mut, symbol_metadata True False False),
    (anon_sym_out, symbol_metadata True False False),
    (anon_sym_SLASH_SLASH, symbol_metadata True False False),
    (anon_sym_trait, symbol_metadata True False False),
    (anon_sym_inferred, symbol_metadata True False False),
    (anon_sym_except_STAR, symbol_metadata True False False),
    (anon_sym_AT, symbol_metadata True False False),
    (anon_sym_DASH, symbol_metadata True False False),
    (anon_sym_PIPE, symbol_metadata True False False),
    (anon_sym_PLUS, symbol_metadata True False False),
    (anon_sym_ref, symbol_metadata True False False),
    (anon_sym_borrowed, symbol_metadata True False False),
    (anon_sym_inout, symbol_metadata True False False)]"

definition symbol_metadata_2 :: "(nat \<times> TSSymbolMetadata) list" where "symbol_metadata_2 = [
    (anon_sym_owned, symbol_metadata True False False),
    (anon_sym_read, symbol_metadata True False False),
    (anon_sym_var, symbol_metadata True False False),
    (anon_sym_deinit, symbol_metadata True False False),
    (anon_sym_unified, symbol_metadata True False False),
    (anon_sym_where, symbol_metadata True False False),
    (anon_sym_self, symbol_metadata True False False),
    (anon_sym_CARET, symbol_metadata True False False),
    (anon_sym_not, symbol_metadata True False False),
    (anon_sym_and, symbol_metadata True False False),
    (anon_sym_or, symbol_metadata True False False),
    (anon_sym_SLASH, symbol_metadata True False False),
    (anon_sym_PERCENT, symbol_metadata True False False),
    (anon_sym_AMP, symbol_metadata True False False),
    (anon_sym_LT_LT, symbol_metadata True False False),
    (anon_sym_TILDE, symbol_metadata True False False),
    (anon_sym_is, symbol_metadata True False False),
    (anon_sym_LT, symbol_metadata True False False),
    (anon_sym_LT_EQ, symbol_metadata True False False),
    (anon_sym_EQ_EQ, symbol_metadata True False False),
    (anon_sym_BANG_EQ, symbol_metadata True False False),
    (anon_sym_GT_EQ, symbol_metadata True False False),
    (anon_sym_GT, symbol_metadata True False False),
    (anon_sym_LT_GT, symbol_metadata True False False),
    (anon_sym_lambda, symbol_metadata True False False),
    (anon_sym_PLUS_EQ, symbol_metadata True False False),
    (anon_sym_DASH_EQ, symbol_metadata True False False),
    (anon_sym_STAR_EQ, symbol_metadata True False False),
    (anon_sym_SLASH_EQ, symbol_metadata True False False),
    (anon_sym_AT_EQ, symbol_metadata True False False),
    (anon_sym_SLASH_SLASH_EQ, symbol_metadata True False False),
    (anon_sym_PERCENT_EQ, symbol_metadata True False False),
    (anon_sym_STAR_STAR_EQ, symbol_metadata True False False),
    (anon_sym_GT_GT_EQ, symbol_metadata True False False),
    (anon_sym_LT_LT_EQ, symbol_metadata True False False),
    (anon_sym_AMP_EQ, symbol_metadata True False False),
    (anon_sym_CARET_EQ, symbol_metadata True False False)]"

definition symbol_metadata_3 :: "(nat \<times> TSSymbolMetadata) list" where "symbol_metadata_3 = [
    (anon_sym_PIPE_EQ, symbol_metadata True False False),
    (anon_sym_yield, symbol_metadata True False False),
    (sym_ellipsis, symbol_metadata True True False),
    (anon_sym___mlir_type, symbol_metadata True False False),
    (sym_escape_sequence, symbol_metadata True True False),
    (anon_sym_BSLASH, symbol_metadata True False False),
    (aux_sym_format_specifier_token1, symbol_metadata False False False),
    (sym_type_conversion, symbol_metadata True True False),
    (sym_integer, symbol_metadata True True False), (sym_float, symbol_metadata True True False),
    (anon_sym_await, symbol_metadata True False False),
    (sym_true, symbol_metadata True True False), (sym_false, symbol_metadata True True False),
    (sym_none, symbol_metadata True True False), (sym_comment, symbol_metadata True True False),
    (sym_line_continuation, symbol_metadata True True False),
    (sym__newline, symbol_metadata False True False),
    (sym__indent, symbol_metadata False True False),
    (sym__dedent, symbol_metadata False True False),
    (sym_string_start, symbol_metadata True True False),
    (sym__string_content, symbol_metadata False True False),
    (sym_escape_interpolation, symbol_metadata True True False),
    (sym_string_end, symbol_metadata True True False),
    (sym__mlir_backtick, symbol_metadata False True False),
    (sym__mlir_ident, symbol_metadata True True False),
    (sym__mlir_number, symbol_metadata True True False),
    (sym_mlir_punctuation, symbol_metadata True True False),
    (sym_module, symbol_metadata True True False),
    (sym__statement, symbol_metadata False True False),
    (sym__simple_statements, symbol_metadata False True False),
    (sym_import_statement, symbol_metadata True True False),
    (sym_import_prefix, symbol_metadata True True False),
    (sym_relative_import, symbol_metadata True True False),
    (sym_future_import_statement, symbol_metadata True True False),
    (sym_import_from_statement, symbol_metadata True True False),
    (sym__import_list, symbol_metadata False True False),
    (sym_aliased_import, symbol_metadata True True False)]"

definition symbol_metadata_4 :: "(nat \<times> TSSymbolMetadata) list" where "symbol_metadata_4 = [
    (sym_wildcard_import, symbol_metadata True True False),
    (sym_print_statement, symbol_metadata True True False),
    (sym_chevron, symbol_metadata True True False),
    (sym_assert_statement, symbol_metadata True True False),
    (sym_comptime_assert_statement, symbol_metadata True True False),
    (sym_expression_statement, symbol_metadata False True True),
    (sym_tuple_expression, symbol_metadata True True False),
    (sym_named_expression, symbol_metadata True True False),
    (sym__named_expression_lhs, symbol_metadata False True False),
    (sym_return_statement, symbol_metadata True True False),
    (sym_delete_statement, symbol_metadata True True False),
    (sym_raise_statement, symbol_metadata True True False),
    (sym_pass_statement, symbol_metadata True True False),
    (sym_break_statement, symbol_metadata True True False),
    (sym_continue_statement, symbol_metadata True True False),
    (sym_extension_definition, symbol_metadata True True False),
    (sym_mlir_region, symbol_metadata True True False),
    (sym_comptime_statement, symbol_metadata True True False),
    (sym_if_statement, symbol_metadata True True False),
    (sym_elif_clause, symbol_metadata True True False),
    (sym_else_clause, symbol_metadata True True False),
    (sym_match_statement, symbol_metadata True True False),
    (sym__match_block, symbol_metadata True True False),
    (sym_case_clause, symbol_metadata True True False),
    (sym_for_statement, symbol_metadata True True False),
    (sym_while_statement, symbol_metadata True True False),
    (sym_try_statement, symbol_metadata True True False),
    (sym_except_clause, symbol_metadata True True False),
    (sym_finally_clause, symbol_metadata True True False),
    (sym_with_statement, symbol_metadata True True False),
    (sym_with_clause, symbol_metadata True True False),
    (sym_with_item, symbol_metadata True True False),
    (sym_function_definition, symbol_metadata True True False),
    (sym_result_convention, symbol_metadata True True False),
    (aux_sym__function_effects, symbol_metadata False False False),
    (sym_abi_specifier, symbol_metadata True True False),
    (sym__raises_type, symbol_metadata True True False)]"

definition symbol_metadata_5 :: "(nat \<times> TSSymbolMetadata) list" where "symbol_metadata_5 = [
    (sym_capture_list, symbol_metadata True True False),
    (sym_wildcard_origin, symbol_metadata True True False),
    (sym_parameters, symbol_metadata True True False),
    (sym_lambda_parameters, symbol_metadata True True False),
    (sym_list_splat, symbol_metadata True True False),
    (sym_dictionary_splat, symbol_metadata True True False),
    (sym_global_statement, symbol_metadata True True False),
    (sym_nonlocal_statement, symbol_metadata True True False),
    (sym_exec_statement, symbol_metadata True True False),
    (sym_type_alias_statement, symbol_metadata True True False),
    (sym_parameterized_alias_statement, symbol_metadata True True False),
    (sym_class_definition, symbol_metadata True True False),
    (sym_superclass_list, symbol_metadata True True False),
    (sym_type_parameter, symbol_metadata True True False),
    (sym__type_parameter_default, symbol_metadata False True False),
    (sym_infer_separator, symbol_metadata True True False),
    (sym_trait_definition, symbol_metadata True True False),
    (sym_trait_list, symbol_metadata True True False),
    (sym_parenthesized_list_splat, symbol_metadata True True False),
    (sym_argument_list, symbol_metadata True True False),
    (sym_parameter_list, symbol_metadata True True False),
    (sym_decorated_definition, symbol_metadata True True False),
    (sym_except_group_clause, symbol_metadata True True False),
    (sym_decorator, symbol_metadata True True False), (sym_block, symbol_metadata True True False),
    (sym_expression_list, symbol_metadata True True False),
    (sym_dotted_name, symbol_metadata True True False),
    (sym_case_pattern, symbol_metadata True True False),
    (sym__simple_pattern, symbol_metadata False True False),
    (sym__as_pattern, symbol_metadata True True False),
    (sym_union_pattern, symbol_metadata True True False),
    (sym__list_pattern, symbol_metadata True True False),
    (sym__tuple_pattern, symbol_metadata True True False),
    (sym_dict_pattern, symbol_metadata True True False),
    (sym__key_value_pattern, symbol_metadata False True False),
    (sym_keyword_pattern, symbol_metadata True True False),
    (sym_splat_pattern, symbol_metadata True True False)]"

definition symbol_metadata_6 :: "(nat \<times> TSSymbolMetadata) list" where "symbol_metadata_6 = [
    (sym_class_pattern, symbol_metadata True True False),
    (sym_complex_pattern, symbol_metadata True True False),
    (sym__parameters, symbol_metadata False True False),
    (sym__patterns, symbol_metadata False True False),
    (sym_parameter, symbol_metadata False True True),
    (sym_pattern, symbol_metadata False True True),
    (sym_tuple_pattern, symbol_metadata True True False),
    (sym_list_pattern, symbol_metadata True True False),
    (sym__ref_convention, symbol_metadata False True False),
    (sym_argument_convention, symbol_metadata True True False),
    (sym_unified_clause, symbol_metadata True True False),
    (sym_where_clause, symbol_metadata True True False),
    (sym_self_parameter, symbol_metadata True True False),
    (sym_typed_parameter, symbol_metadata True True False),
    (sym_default_parameter, symbol_metadata True True False),
    (sym_typed_default_parameter, symbol_metadata True True False),
    (sym_list_splat_pattern, symbol_metadata True True False),
    (sym_dictionary_splat_pattern, symbol_metadata True True False),
    (sym_as_pattern, symbol_metadata True True False),
    (sym__expression_within_for_in_clause, symbol_metadata False True False),
    (sym_expression, symbol_metadata False True True),
    (sym_primary_expression, symbol_metadata False True True),
    (sym_comptime_expression, symbol_metadata True True False),
    (sym_transfer_expression, symbol_metadata True True False),
    (sym_not_operator, symbol_metadata True True False),
    (sym_boolean_operator, symbol_metadata True True False),
    (sym_binary_operator, symbol_metadata True True False),
    (sym_unary_operator, symbol_metadata True True False),
    (sym__not_in, symbol_metadata True False False),
    (sym__is_not, symbol_metadata True False False),
    (sym_comparison_operator, symbol_metadata True True False),
    (sym_lambda, symbol_metadata True True False),
    (sym_lambda_within_for_in_clause, symbol_metadata True True False),
    (sym_assignment, symbol_metadata True True False),
    (sym_augmented_assignment, symbol_metadata True True False),
    (sym_pattern_list, symbol_metadata True True False)]"

definition symbol_metadata_7 :: "(nat \<times> TSSymbolMetadata) list" where "symbol_metadata_7 = [
    (sym__right_hand_side, symbol_metadata False True False),
    (sym_yield, symbol_metadata True True False), (sym_attribute, symbol_metadata True True False),
    (sym_subscript, symbol_metadata True True False), (sym_slice, symbol_metadata True True False),
    (sym_call, symbol_metadata True True False), (sym_type, symbol_metadata True True False),
    (sym_called_type, symbol_metadata True True False),
    (sym_function_type, symbol_metadata True True False),
    (sym_splat_type, symbol_metadata True True False),
    (sym_generic_type, symbol_metadata True True False),
    (sym_union_type, symbol_metadata True True False),
    (sym_intersection_type, symbol_metadata True True False),
    (sym__intersection_operand, symbol_metadata False True False),
    (sym_constrained_type, symbol_metadata True True False),
    (sym_member_type, symbol_metadata True True False),
    (sym_slice_keyword_argument, symbol_metadata True True False),
    (sym_keyword_argument, symbol_metadata True True False),
    (sym_mlir_fragment, symbol_metadata True True False),
    (sym_mlir_type, symbol_metadata True True False), (sym_list, symbol_metadata True True False),
    (sym_set, symbol_metadata True True False), (sym_tuple, symbol_metadata True True False),
    (sym_dictionary, symbol_metadata True True False), (sym_pair, symbol_metadata True True False),
    (sym_struct_literal, symbol_metadata True True False),
    (sym_struct_literal_field, symbol_metadata True True False),
    (sym_list_comprehension, symbol_metadata True True False),
    (sym_dictionary_comprehension, symbol_metadata True True False),
    (sym_set_comprehension, symbol_metadata True True False),
    (sym_generator_expression, symbol_metadata True True False),
    (sym__comprehension_clauses, symbol_metadata False True False),
    (sym_parenthesized_expression, symbol_metadata True True False),
    (sym__collection_elements, symbol_metadata False True False),
    (sym_for_in_clause, symbol_metadata True True False),
    (sym_if_clause, symbol_metadata True True False),
    (sym_conditional_expression, symbol_metadata True True False)]"

definition symbol_metadata_8 :: "(nat \<times> TSSymbolMetadata) list" where "symbol_metadata_8 = [
    (sym_concatenated_string, symbol_metadata True True False),
    (sym_string, symbol_metadata True True False),
    (sym_string_content, symbol_metadata True True False),
    (sym_interpolation, symbol_metadata True True False),
    (sym__f_expression, symbol_metadata False True False),
    (sym__not_escape_sequence, symbol_metadata False True False),
    (sym_format_specifier, symbol_metadata True True False),
    (sym_await, symbol_metadata True True False),
    (sym_positional_separator, symbol_metadata True True False),
    (sym_keyword_separator, symbol_metadata True True False),
    (aux_sym_module_repeat1, symbol_metadata False False False),
    (aux_sym__simple_statements_repeat1, symbol_metadata False False False),
    (aux_sym_import_prefix_repeat1, symbol_metadata False False False),
    (aux_sym__import_list_repeat1, symbol_metadata False False False),
    (aux_sym_print_statement_repeat1, symbol_metadata False False False),
    (aux_sym_assert_statement_repeat1, symbol_metadata False False False),
    (aux_sym_if_statement_repeat1, symbol_metadata False False False),
    (aux_sym_match_statement_repeat1, symbol_metadata False False False),
    (aux_sym__match_block_repeat1, symbol_metadata False False False),
    (aux_sym_case_clause_repeat1, symbol_metadata False False False),
    (aux_sym_try_statement_repeat1, symbol_metadata False False False),
    (aux_sym_try_statement_repeat2, symbol_metadata False False False),
    (aux_sym_with_clause_repeat1, symbol_metadata False False False),
    (aux_sym_function_definition_repeat1, symbol_metadata False False False),
    (aux_sym_result_convention_repeat1, symbol_metadata False False False),
    (aux_sym_capture_list_repeat1, symbol_metadata False False False),
    (aux_sym_global_statement_repeat1, symbol_metadata False False False),
    (aux_sym_superclass_list_repeat1, symbol_metadata False False False),
    (aux_sym_type_parameter_repeat1, symbol_metadata False False False),
    (aux_sym_argument_list_repeat1, symbol_metadata False False False),
    (aux_sym_parameter_list_repeat1, symbol_metadata False False False),
    (aux_sym_decorated_definition_repeat1, symbol_metadata False False False),
    (aux_sym_dotted_name_repeat1, symbol_metadata False False False),
    (aux_sym_union_pattern_repeat1, symbol_metadata False False False),
    (aux_sym_dict_pattern_repeat1, symbol_metadata False False False),
    (aux_sym__parameters_repeat1, symbol_metadata False False False),
    (aux_sym__patterns_repeat1, symbol_metadata False False False)]"

definition symbol_metadata_9 :: "(nat \<times> TSSymbolMetadata) list" where "symbol_metadata_9 = [
    (aux_sym_unified_clause_repeat1, symbol_metadata False False False),
    (aux_sym_comparison_operator_repeat1, symbol_metadata False False False),
    (aux_sym_subscript_repeat1, symbol_metadata False False False),
    (aux_sym_called_type_repeat1, symbol_metadata False False False),
    (aux_sym_function_type_repeat1, symbol_metadata False False False),
    (aux_sym_intersection_type_repeat1, symbol_metadata False False False),
    (aux_sym_mlir_fragment_repeat1, symbol_metadata False False False),
    (aux_sym_dictionary_repeat1, symbol_metadata False False False),
    (aux_sym_struct_literal_repeat1, symbol_metadata False False False),
    (aux_sym__comprehension_clauses_repeat1, symbol_metadata False False False),
    (aux_sym__collection_elements_repeat1, symbol_metadata False False False),
    (aux_sym_for_in_clause_repeat1, symbol_metadata False False False),
    (aux_sym_concatenated_string_repeat1, symbol_metadata False False False),
    (aux_sym_string_repeat1, symbol_metadata False False False),
    (aux_sym_string_content_repeat1, symbol_metadata False False False),
    (aux_sym_format_specifier_repeat1, symbol_metadata False False False),
    (alias_sym_as_pattern_target, symbol_metadata True True False),
    (alias_sym_format_expression, symbol_metadata True True False)]"

definition symbol_metadata_rows :: "(nat \<times> TSSymbolMetadata) list" where
  "symbol_metadata_rows = concat [
    symbol_metadata_0, symbol_metadata_1, symbol_metadata_2, symbol_metadata_3, symbol_metadata_4,
    symbol_metadata_5, symbol_metadata_6, symbol_metadata_7, symbol_metadata_8, symbol_metadata_9]"

definition ts_symbol_metadata :: "TSSymbolMetadata list" where
  "ts_symbol_metadata =
     designated (symbol_metadata False False False) (SYMBOL_COUNT + ALIAS_COUNT) symbol_metadata_rows"

section \<open>Reserved words\<close>

definition MAX_RESERVED_WORD_SET_SIZE :: nat where "MAX_RESERVED_WORD_SET_SIZE = 46"

definition reserved_words_0 :: "(nat \<times> nat list) list" where "reserved_words_0 = [

    (1, [anon_sym_import, anon_sym_from, anon_sym_as, anon_sym_comptime, anon_sym_assert,
    anon_sym_return, anon_sym_del, anon_sym_raise, anon_sym_pass, anon_sym_break,
    anon_sym_continue, anon_sym_if, anon_sym_elif, anon_sym_else, anon_sym_async, anon_sym_for,
    anon_sym_in, anon_sym_while, anon_sym_try, anon_sym_except, anon_sym_finally, anon_sym_with,
    anon_sym_def, anon_sym_capturing, anon_sym_escaping, anon_sym_thin, anon_sym_global,
    anon_sym_nonlocal, anon_sym_class, anon_sym_mut, anon_sym_out, anon_sym_ref, anon_sym_var,
    anon_sym_deinit, anon_sym_unified, anon_sym_where, anon_sym_not, anon_sym_and, anon_sym_or,
    anon_sym_is, anon_sym_lambda, anon_sym_yield, anon_sym_await, sym_true, sym_false, sym_none]),
    (2, [anon_sym_as, anon_sym_elif, anon_sym_else, anon_sym_in, anon_sym_except, anon_sym_finally,
    anon_sym_capturing, anon_sym_escaping, anon_sym_thin, anon_sym_deinit, anon_sym_unified,
    anon_sym_where, anon_sym_and, anon_sym_or, anon_sym_is]),
    (3, [anon_sym_as, anon_sym_if, anon_sym_elif, anon_sym_else, anon_sym_for, anon_sym_in,
    anon_sym_while, anon_sym_try, anon_sym_except, anon_sym_finally, anon_sym_with, anon_sym_def,
    anon_sym_capturing, anon_sym_escaping, anon_sym_thin, anon_sym_class, anon_sym_deinit,
    anon_sym_unified, anon_sym_where, anon_sym_and, anon_sym_or, anon_sym_is]),
    (4, [anon_sym_import, anon_sym_from, anon_sym_assert, anon_sym_return, anon_sym_del,
    anon_sym_raise, anon_sym_pass, anon_sym_break, anon_sym_continue, anon_sym_elif,
    anon_sym_else, anon_sym_for, anon_sym_while, anon_sym_try, anon_sym_except, anon_sym_finally,
    anon_sym_with, anon_sym_def, anon_sym_capturing, anon_sym_escaping, anon_sym_thin,
    anon_sym_global, anon_sym_nonlocal, anon_sym_class, anon_sym_ref, anon_sym_var,
    anon_sym_deinit, anon_sym_unified, anon_sym_where, anon_sym_lambda, anon_sym_yield]),
    (5, [anon_sym_import, anon_sym_assert, anon_sym_return, anon_sym_del, anon_sym_raise,
    anon_sym_pass, anon_sym_break, anon_sym_continue, anon_sym_elif, anon_sym_else, anon_sym_for,
    anon_sym_while, anon_sym_try, anon_sym_except, anon_sym_finally, anon_sym_with, anon_sym_def,
    anon_sym_global, anon_sym_nonlocal, anon_sym_class, anon_sym_ref, anon_sym_var,
    anon_sym_deinit, anon_sym_unified, anon_sym_lambda, anon_sym_yield])]"

definition reserved_words_1 :: "(nat \<times> nat list) list" where "reserved_words_1 = [

    (6, [anon_sym_import, anon_sym_from, anon_sym_assert, anon_sym_return, anon_sym_del,
    anon_sym_raise, anon_sym_pass, anon_sym_break, anon_sym_continue, anon_sym_elif,
    anon_sym_else, anon_sym_for, anon_sym_while, anon_sym_try, anon_sym_except, anon_sym_finally,
    anon_sym_with, anon_sym_def, anon_sym_global, anon_sym_nonlocal, anon_sym_class,
    anon_sym_ref, anon_sym_var, anon_sym_deinit, anon_sym_unified, anon_sym_lambda, anon_sym_yield]),
    (7, [anon_sym_import, anon_sym_from, anon_sym_assert, anon_sym_return, anon_sym_del,
    anon_sym_raise, anon_sym_pass, anon_sym_break, anon_sym_continue, anon_sym_elif,
    anon_sym_else, anon_sym_while, anon_sym_try, anon_sym_except, anon_sym_finally,
    anon_sym_with, anon_sym_def, anon_sym_global, anon_sym_nonlocal, anon_sym_class,
    anon_sym_ref, anon_sym_var, anon_sym_deinit, anon_sym_unified, anon_sym_lambda, anon_sym_yield]),
    (8, [anon_sym_import, anon_sym_from, anon_sym_as, anon_sym_assert, anon_sym_return, anon_sym_del,
    anon_sym_raise, anon_sym_pass, anon_sym_break, anon_sym_continue, anon_sym_if, anon_sym_elif,
    anon_sym_else, anon_sym_for, anon_sym_in, anon_sym_while, anon_sym_try, anon_sym_except,
    anon_sym_finally, anon_sym_with, anon_sym_global, anon_sym_nonlocal, anon_sym_class,
    anon_sym_ref, anon_sym_var, anon_sym_deinit, anon_sym_unified, anon_sym_and, anon_sym_or,
    anon_sym_is, anon_sym_yield]),
    (9, [anon_sym_import, anon_sym_from, anon_sym_assert, anon_sym_return, anon_sym_del,
    anon_sym_raise, anon_sym_pass, anon_sym_break, anon_sym_continue, anon_sym_elif,
    anon_sym_else, anon_sym_for, anon_sym_while, anon_sym_try, anon_sym_except, anon_sym_finally,
    anon_sym_with, anon_sym_def, anon_sym_global, anon_sym_nonlocal, anon_sym_class,
    anon_sym_ref, anon_sym_var, anon_sym_deinit, anon_sym_unified, anon_sym_where,
    anon_sym_lambda, anon_sym_yield]),
    (10, [anon_sym_import, anon_sym_from, anon_sym_assert, anon_sym_return, anon_sym_del,
    anon_sym_raise, anon_sym_pass, anon_sym_break, anon_sym_continue, anon_sym_elif,
    anon_sym_for, anon_sym_while, anon_sym_try, anon_sym_except, anon_sym_finally, anon_sym_with,
    anon_sym_def, anon_sym_global, anon_sym_nonlocal, anon_sym_class, anon_sym_ref, anon_sym_var,
    anon_sym_deinit, anon_sym_unified, anon_sym_lambda, anon_sym_yield])]"

definition reserved_words_2 :: "(nat \<times> nat list) list" where "reserved_words_2 = [

    (11, [anon_sym_import, anon_sym_from, anon_sym_as, anon_sym_assert, anon_sym_return, anon_sym_del,
    anon_sym_raise, anon_sym_pass, anon_sym_break, anon_sym_continue, anon_sym_if, anon_sym_elif,
    anon_sym_else, anon_sym_for, anon_sym_in, anon_sym_while, anon_sym_try, anon_sym_except,
    anon_sym_finally, anon_sym_with, anon_sym_global, anon_sym_nonlocal, anon_sym_class,
    anon_sym_ref, anon_sym_var, anon_sym_deinit, anon_sym_unified, anon_sym_where, anon_sym_and,
    anon_sym_or, anon_sym_is, anon_sym_yield]),
    (12, [anon_sym_import, anon_sym_from, anon_sym_as, anon_sym_assert, anon_sym_return, anon_sym_del,
    anon_sym_raise, anon_sym_pass, anon_sym_break, anon_sym_continue, anon_sym_if, anon_sym_elif,
    anon_sym_else, anon_sym_for, anon_sym_in, anon_sym_while, anon_sym_try, anon_sym_except,
    anon_sym_finally, anon_sym_with, anon_sym_capturing, anon_sym_escaping, anon_sym_thin,
    anon_sym_global, anon_sym_nonlocal, anon_sym_class, anon_sym_unified, anon_sym_where,
    anon_sym_and, anon_sym_or, anon_sym_is, anon_sym_yield]),
    (13, [anon_sym_import, anon_sym_assert, anon_sym_return, anon_sym_del, anon_sym_raise,
    anon_sym_pass, anon_sym_break, anon_sym_continue, anon_sym_elif, anon_sym_else, anon_sym_for,
    anon_sym_while, anon_sym_try, anon_sym_except, anon_sym_finally, anon_sym_with, anon_sym_def,
    anon_sym_capturing, anon_sym_escaping, anon_sym_thin, anon_sym_global, anon_sym_nonlocal,
    anon_sym_class, anon_sym_ref, anon_sym_var, anon_sym_deinit, anon_sym_unified,
    anon_sym_lambda, anon_sym_yield]),
    (14, [anon_sym_import, anon_sym_from, anon_sym_assert, anon_sym_return, anon_sym_del,
    anon_sym_raise, anon_sym_pass, anon_sym_break, anon_sym_continue, anon_sym_elif,
    anon_sym_else, anon_sym_while, anon_sym_try, anon_sym_except, anon_sym_finally,
    anon_sym_with, anon_sym_def, anon_sym_capturing, anon_sym_escaping, anon_sym_thin,
    anon_sym_global, anon_sym_nonlocal, anon_sym_class, anon_sym_ref, anon_sym_var,
    anon_sym_deinit, anon_sym_unified, anon_sym_lambda, anon_sym_yield])]"

definition reserved_words_3 :: "(nat \<times> nat list) list" where "reserved_words_3 = [

    (15, [anon_sym_import, anon_sym_from, anon_sym_assert, anon_sym_return, anon_sym_del,
    anon_sym_raise, anon_sym_pass, anon_sym_break, anon_sym_continue, anon_sym_elif,
    anon_sym_else, anon_sym_for, anon_sym_while, anon_sym_try, anon_sym_except, anon_sym_finally,
    anon_sym_with, anon_sym_def, anon_sym_capturing, anon_sym_escaping, anon_sym_thin,
    anon_sym_global, anon_sym_nonlocal, anon_sym_class, anon_sym_ref, anon_sym_var,
    anon_sym_deinit, anon_sym_unified, anon_sym_lambda, anon_sym_yield]),
    (16, [anon_sym_import, anon_sym_from, anon_sym_assert, anon_sym_return, anon_sym_del,
    anon_sym_raise, anon_sym_pass, anon_sym_break, anon_sym_continue, anon_sym_elif,
    anon_sym_else, anon_sym_while, anon_sym_try, anon_sym_except, anon_sym_finally,
    anon_sym_with, anon_sym_def, anon_sym_capturing, anon_sym_escaping, anon_sym_thin,
    anon_sym_global, anon_sym_nonlocal, anon_sym_class, anon_sym_ref, anon_sym_var,
    anon_sym_deinit, anon_sym_unified, anon_sym_where, anon_sym_lambda, anon_sym_yield]),
    (17, [anon_sym_import, anon_sym_from, anon_sym_assert, anon_sym_return, anon_sym_del,
    anon_sym_raise, anon_sym_pass, anon_sym_break, anon_sym_continue, anon_sym_elif,
    anon_sym_for, anon_sym_while, anon_sym_try, anon_sym_except, anon_sym_finally, anon_sym_with,
    anon_sym_def, anon_sym_capturing, anon_sym_escaping, anon_sym_thin, anon_sym_global,
    anon_sym_nonlocal, anon_sym_class, anon_sym_ref, anon_sym_var, anon_sym_deinit,
    anon_sym_unified, anon_sym_lambda, anon_sym_yield]),
    (18, [anon_sym_import, anon_sym_from, anon_sym_as, anon_sym_assert, anon_sym_return, anon_sym_del,
    anon_sym_raise, anon_sym_pass, anon_sym_break, anon_sym_continue, anon_sym_if, anon_sym_elif,
    anon_sym_else, anon_sym_for, anon_sym_in, anon_sym_while, anon_sym_try, anon_sym_except,
    anon_sym_finally, anon_sym_with, anon_sym_capturing, anon_sym_escaping, anon_sym_thin,
    anon_sym_global, anon_sym_nonlocal, anon_sym_class, anon_sym_ref, anon_sym_var,
    anon_sym_deinit, anon_sym_unified, anon_sym_where, anon_sym_and, anon_sym_or, anon_sym_is,
    anon_sym_yield])]"

definition reserved_words_4 :: "(nat \<times> nat list) list" where "reserved_words_4 = [

    (19, [anon_sym_import, anon_sym_from, anon_sym_as, anon_sym_assert, anon_sym_return, anon_sym_del,
    anon_sym_raise, anon_sym_pass, anon_sym_break, anon_sym_continue, anon_sym_if, anon_sym_elif,
    anon_sym_else, anon_sym_for, anon_sym_in, anon_sym_while, anon_sym_try, anon_sym_except,
    anon_sym_finally, anon_sym_with, anon_sym_def, anon_sym_capturing, anon_sym_escaping,
    anon_sym_thin, anon_sym_global, anon_sym_nonlocal, anon_sym_class, anon_sym_ref,
    anon_sym_var, anon_sym_deinit, anon_sym_unified, anon_sym_where, anon_sym_not, anon_sym_and,
    anon_sym_or, anon_sym_is, anon_sym_lambda, anon_sym_yield]),
    (20, [anon_sym_import, anon_sym_from, anon_sym_as, anon_sym_assert, anon_sym_return, anon_sym_del,
    anon_sym_raise, anon_sym_pass, anon_sym_break, anon_sym_continue, anon_sym_if, anon_sym_elif,
    anon_sym_else, anon_sym_for, anon_sym_in, anon_sym_while, anon_sym_try, anon_sym_except,
    anon_sym_finally, anon_sym_with, anon_sym_capturing, anon_sym_escaping, anon_sym_thin,
    anon_sym_global, anon_sym_nonlocal, anon_sym_class, anon_sym_var, anon_sym_deinit,
    anon_sym_unified, anon_sym_where, anon_sym_and, anon_sym_or, anon_sym_is, anon_sym_yield]),
    (21, [anon_sym_import, anon_sym_from, anon_sym_as, anon_sym_assert, anon_sym_return, anon_sym_del,
    anon_sym_raise, anon_sym_pass, anon_sym_break, anon_sym_continue, anon_sym_if, anon_sym_elif,
    anon_sym_else, anon_sym_for, anon_sym_in, anon_sym_while, anon_sym_try, anon_sym_except,
    anon_sym_finally, anon_sym_with, anon_sym_capturing, anon_sym_escaping, anon_sym_thin,
    anon_sym_global, anon_sym_nonlocal, anon_sym_class, anon_sym_deinit, anon_sym_unified,
    anon_sym_where, anon_sym_and, anon_sym_or, anon_sym_is]),
    (22, [anon_sym_import, anon_sym_from, anon_sym_as, anon_sym_assert, anon_sym_return, anon_sym_del,
    anon_sym_raise, anon_sym_pass, anon_sym_break, anon_sym_continue, anon_sym_if, anon_sym_elif,
    anon_sym_else, anon_sym_for, anon_sym_in, anon_sym_while, anon_sym_try, anon_sym_except,
    anon_sym_finally, anon_sym_with, anon_sym_def, anon_sym_capturing, anon_sym_escaping,
    anon_sym_thin, anon_sym_global, anon_sym_nonlocal, anon_sym_class, anon_sym_ref,
    anon_sym_var, anon_sym_deinit, anon_sym_unified, anon_sym_where, anon_sym_and, anon_sym_or,
    anon_sym_is])]"

definition reserved_words_5 :: "(nat \<times> nat list) list" where "reserved_words_5 = [

    (23, [anon_sym_import, anon_sym_from, anon_sym_as, anon_sym_assert, anon_sym_return, anon_sym_del,
    anon_sym_raise, anon_sym_pass, anon_sym_break, anon_sym_continue, anon_sym_if, anon_sym_elif,
    anon_sym_else, anon_sym_for, anon_sym_in, anon_sym_while, anon_sym_try, anon_sym_except,
    anon_sym_finally, anon_sym_with, anon_sym_def, anon_sym_capturing, anon_sym_escaping,
    anon_sym_thin, anon_sym_global, anon_sym_nonlocal, anon_sym_class, anon_sym_ref,
    anon_sym_var, anon_sym_deinit, anon_sym_unified, anon_sym_where, anon_sym_and, anon_sym_or,
    anon_sym_is, anon_sym_yield]),
    (24, [anon_sym_import, anon_sym_as, anon_sym_assert, anon_sym_return, anon_sym_del, anon_sym_raise,
    anon_sym_pass, anon_sym_break, anon_sym_continue, anon_sym_if, anon_sym_elif, anon_sym_else,
    anon_sym_for, anon_sym_in, anon_sym_while, anon_sym_try, anon_sym_except, anon_sym_finally,
    anon_sym_with, anon_sym_def, anon_sym_capturing, anon_sym_escaping, anon_sym_thin,
    anon_sym_global, anon_sym_nonlocal, anon_sym_class, anon_sym_ref, anon_sym_var,
    anon_sym_deinit, anon_sym_unified, anon_sym_where, anon_sym_and, anon_sym_or, anon_sym_is,
    anon_sym_yield]),
    (25, [anon_sym_import, anon_sym_from, anon_sym_as, anon_sym_assert, anon_sym_return, anon_sym_del,
    anon_sym_raise, anon_sym_pass, anon_sym_break, anon_sym_continue, anon_sym_if, anon_sym_elif,
    anon_sym_else, anon_sym_for, anon_sym_while, anon_sym_try, anon_sym_except, anon_sym_finally,
    anon_sym_with, anon_sym_def, anon_sym_capturing, anon_sym_escaping, anon_sym_thin,
    anon_sym_global, anon_sym_nonlocal, anon_sym_class, anon_sym_ref, anon_sym_var,
    anon_sym_deinit, anon_sym_unified, anon_sym_where, anon_sym_not, anon_sym_and, anon_sym_or,
    anon_sym_is, anon_sym_lambda, anon_sym_yield]),
    (26, [anon_sym_as, anon_sym_in, anon_sym_capturing, anon_sym_escaping, anon_sym_thin,
    anon_sym_deinit, anon_sym_unified, anon_sym_where, anon_sym_and, anon_sym_or, anon_sym_is]),
    (27, [anon_sym_as, anon_sym_elif, anon_sym_else, anon_sym_in, anon_sym_except, anon_sym_capturing,
    anon_sym_escaping, anon_sym_thin, anon_sym_deinit, anon_sym_unified, anon_sym_where,
    anon_sym_and, anon_sym_or, anon_sym_is])]"

definition reserved_words_6 :: "(nat \<times> nat list) list" where "reserved_words_6 = [

    (28, [anon_sym_import, anon_sym_from, anon_sym_as, anon_sym_return, anon_sym_del, anon_sym_raise,
    anon_sym_pass, anon_sym_break, anon_sym_continue, anon_sym_if, anon_sym_elif, anon_sym_else,
    anon_sym_for, anon_sym_in, anon_sym_while, anon_sym_try, anon_sym_except, anon_sym_finally,
    anon_sym_with, anon_sym_def, anon_sym_capturing, anon_sym_escaping, anon_sym_thin,
    anon_sym_global, anon_sym_nonlocal, anon_sym_class, anon_sym_ref, anon_sym_var,
    anon_sym_deinit, anon_sym_unified, anon_sym_where, anon_sym_not, anon_sym_and, anon_sym_or,
    anon_sym_is, anon_sym_lambda, anon_sym_yield]),
    (29, [anon_sym_import, anon_sym_from, anon_sym_as, anon_sym_assert, anon_sym_return, anon_sym_del,
    anon_sym_raise, anon_sym_pass, anon_sym_break, anon_sym_continue, anon_sym_if, anon_sym_elif,
    anon_sym_else, anon_sym_for, anon_sym_in, anon_sym_while, anon_sym_try, anon_sym_except,
    anon_sym_finally, anon_sym_with, anon_sym_def, anon_sym_capturing, anon_sym_escaping,
    anon_sym_thin, anon_sym_global, anon_sym_nonlocal, anon_sym_class, anon_sym_ref,
    anon_sym_var, anon_sym_deinit, anon_sym_unified, anon_sym_where, anon_sym_and, anon_sym_or,
    anon_sym_is, anon_sym_lambda, anon_sym_yield]),
    (30, [anon_sym_import, anon_sym_from, anon_sym_as, anon_sym_comptime, anon_sym_assert,
    anon_sym_return, anon_sym_del, anon_sym_raise, anon_sym_pass, anon_sym_break,
    anon_sym_continue, anon_sym_if, anon_sym_elif, anon_sym_else, anon_sym_async, anon_sym_for,
    anon_sym_in, anon_sym_while, anon_sym_try, anon_sym_except, anon_sym_finally, anon_sym_with,
    anon_sym_def, anon_sym_capturing, anon_sym_escaping, anon_sym_thin, anon_sym_global,
    anon_sym_nonlocal, anon_sym_class, anon_sym_unified, anon_sym_where, anon_sym_not,
    anon_sym_and, anon_sym_or, anon_sym_is, anon_sym_lambda, anon_sym_yield, anon_sym_await,
    sym_true, sym_false, sym_none])]"

definition reserved_words_7 :: "(nat \<times> nat list) list" where "reserved_words_7 = [

    (31, [anon_sym_import, anon_sym_from, anon_sym_as, anon_sym_comptime, anon_sym_assert,
    anon_sym_return, anon_sym_del, anon_sym_raise, anon_sym_pass, anon_sym_break,
    anon_sym_continue, anon_sym_if, anon_sym_elif, anon_sym_else, anon_sym_async, anon_sym_for,
    anon_sym_in, anon_sym_while, anon_sym_try, anon_sym_except, anon_sym_finally, anon_sym_with,
    anon_sym_def, anon_sym_capturing, anon_sym_escaping, anon_sym_thin, anon_sym_global,
    anon_sym_nonlocal, anon_sym_class, anon_sym_mut, anon_sym_out, anon_sym_ref, anon_sym_var,
    anon_sym_deinit, anon_sym_unified, anon_sym_where, anon_sym_not, anon_sym_and, anon_sym_or,
    anon_sym_is, anon_sym_lambda, anon_sym_yield, anon_sym_await]),
    (32, [anon_sym_import, anon_sym_from, anon_sym_as, anon_sym_assert, anon_sym_return, anon_sym_del,
    anon_sym_raise, anon_sym_pass, anon_sym_break, anon_sym_continue, anon_sym_if, anon_sym_elif,
    anon_sym_else, anon_sym_async, anon_sym_for, anon_sym_in, anon_sym_while, anon_sym_try,
    anon_sym_except, anon_sym_finally, anon_sym_with, anon_sym_def, anon_sym_capturing,
    anon_sym_escaping, anon_sym_thin, anon_sym_global, anon_sym_nonlocal, anon_sym_class,
    anon_sym_not, anon_sym_and, anon_sym_or, anon_sym_is, anon_sym_lambda, anon_sym_yield,
    anon_sym_await, sym_true, sym_false, sym_none]),
    (33, [anon_sym_import, anon_sym_from, anon_sym_as, anon_sym_comptime, anon_sym_assert,
    anon_sym_return, anon_sym_del, anon_sym_raise, anon_sym_pass, anon_sym_break,
    anon_sym_continue, anon_sym_if, anon_sym_elif, anon_sym_else, anon_sym_async, anon_sym_for,
    anon_sym_in, anon_sym_while, anon_sym_try, anon_sym_except, anon_sym_finally, anon_sym_with,
    anon_sym_capturing, anon_sym_escaping, anon_sym_thin, anon_sym_global, anon_sym_nonlocal,
    anon_sym_class, anon_sym_mut, anon_sym_out, anon_sym_ref, anon_sym_var, anon_sym_deinit,
    anon_sym_unified, anon_sym_where, anon_sym_not, anon_sym_and, anon_sym_or, anon_sym_is,
    anon_sym_lambda, anon_sym_yield, anon_sym_await, sym_true, sym_false, sym_none])]"

definition reserved_word_rows :: "(nat \<times> nat list) list" where
  "reserved_word_rows = concat [
    reserved_words_0, reserved_words_1, reserved_words_2, reserved_words_3, reserved_words_4,
    reserved_words_5, reserved_words_6, reserved_words_7]"

text \<open>A set fills its row from the left; the rest of the row is 0.\<close>

definition reserved_row :: "nat list \<Rightarrow> nat list" where
  "reserved_row ws = designated 0 MAX_RESERVED_WORD_SET_SIZE (enumerate 0 ws)"

definition ts_reserved_words :: "nat list list" where
  "ts_reserved_words = designated (reserved_row []) 34
     (map (\<lambda>(i, ws). (i, reserved_row ws)) reserved_word_rows)"

end
