(* ===== verification/Mojo_Symbol_Facts.thy ===== *)
theory Mojo_Symbol_Facts
  imports Mojo_Symbols
begin

text \<open>
  The rows of the symbol tables as equations for their elements, and the symbols sorted by name and
  metadata, so that equal ones are neighbours.
\<close>

section \<open>Dense tables\<close>

lemmas symbol_number_defs = lex_symbol_defs grammar_symbol_defs

lemma symbol_numbers: "[0..<350] = 0 # 1 # [2..<350]"
  by (simp add: upt_conv_Cons [of 0] upt_conv_Cons [of "Suc 0"] numeral_2_eq_2 del: upt_Suc)

lemma symbol_rows_dense:
  "map fst symbol_name_rows = [0..<350]" "map fst symbol_map_rows = [0..<350]"
  "map fst symbol_metadata_rows = [0..<350]"
  unfolding symbol_numbers symbol_name_rows_def symbol_map_rows_def symbol_metadata_rows_def 
    symbol_names_0_def symbol_names_1_def symbol_names_2_def symbol_map_0_def symbol_map_1_def
    symbol_map_2_def symbol_metadata_0_def symbol_metadata_1_def symbol_metadata_2_def
    symbol_metadata_3_def symbol_metadata_4_def symbol_metadata_5_def symbol_metadata_6_def
    symbol_metadata_7_def symbol_metadata_8_def symbol_metadata_9_def
  by (simp_all add: upt_rec_numeral symbol_number_defs)

lemma symbol_tables:
  "ts_symbol_names = map snd symbol_name_rows" "ts_symbol_map = map snd symbol_map_rows"
  "ts_symbol_metadata = map snd symbol_metadata_rows"
  by (simp_all add: ts_symbol_names_def ts_symbol_map_def ts_symbol_metadata_def
      SYMBOL_COUNT_def ALIAS_COUNT_def designated_dense symbol_rows_dense)

lemma symbol_row_nth:
  "(i, x) \<in> set symbol_name_rows \<Longrightarrow> ts_symbol_names ! i = x"
  "(i, y) \<in> set symbol_map_rows \<Longrightarrow> ts_symbol_map ! i = y"
  "(i, m) \<in> set symbol_metadata_rows \<Longrightarrow> ts_symbol_metadata ! i = m"
  unfolding symbol_tables using symbol_rows_dense dense_nth by metis+

section \<open>Rows as equations\<close>

text \<open>What a user of the parser sees of a symbol: its name and whether it is visible and named.\<close>

definition symbol_key :: "nat \<Rightarrow> string \<times> bool \<times> bool" where
  "symbol_key s = (ts_symbol_names ! s, visible (ts_symbol_metadata ! s), named (ts_symbol_metadata ! s))"

lemma name_facts_0:
  "ts_symbol_names ! 0 = ''end'' \<and> ts_symbol_names ! 1 = ''identifier'' \<and>
   ts_symbol_names ! 2 = '';'' \<and> ts_symbol_names ! 3 = ''import'' \<and>
   ts_symbol_names ! 4 = ''.'' \<and> ts_symbol_names ! 5 = ''from'' \<and>
   ts_symbol_names ! 6 = ''__future__'' \<and> ts_symbol_names ! 7 = ''('' \<and>
   ts_symbol_names ! 8 = '')'' \<and> ts_symbol_names ! 9 = '','' \<and>
   ts_symbol_names ! 10 = ''as'' \<and> ts_symbol_names ! 11 = ''*'' \<and>
   ts_symbol_names ! 12 = ''print'' \<and> ts_symbol_names ! 13 = ''>>'' \<and>
   ts_symbol_names ! 14 = ''comptime'' \<and> ts_symbol_names ! 15 = ''assert'' \<and>
   ts_symbol_names ! 16 = ''__comptime_assert'' \<and> ts_symbol_names ! 17 = '':='' \<and>
   ts_symbol_names ! 18 = ''return'' \<and> ts_symbol_names ! 19 = ''del'' \<and>
   ts_symbol_names ! 20 = ''raise'' \<and> ts_symbol_names ! 21 = ''pass'' \<and>
   ts_symbol_names ! 22 = ''break'' \<and> ts_symbol_names ! 23 = ''continue'' \<and>
   ts_symbol_names ! 24 = ''__extension'' \<and> ts_symbol_names ! 25 = '':'' \<and>
   ts_symbol_names ! 26 = ''__mlir_region'' \<and> ts_symbol_names ! 27 = ''if'' \<and>
   ts_symbol_names ! 28 = ''elif'' \<and> ts_symbol_names ! 29 = ''else'' \<and>
   ts_symbol_names ! 30 = ''match'' \<and> ts_symbol_names ! 31 = ''case'' \<and>
   ts_symbol_names ! 32 = ''async'' \<and> ts_symbol_names ! 33 = ''for'' \<and>
   ts_symbol_names ! 34 = ''in'' \<and> ts_symbol_names ! 35 = ''while'' \<and>
   ts_symbol_names ! 36 = ''try'' \<and> ts_symbol_names ! 37 = ''except'' \<and>
   ts_symbol_names ! 38 = ''finally'' \<and> ts_symbol_names ! 39 = ''with'' \<and>
   ts_symbol_names ! 40 = ''def'' \<and> ts_symbol_names ! 41 = ''fn'' \<and>
   ts_symbol_names ! 42 = ''['' \<and> ts_symbol_names ! 43 = '']'' \<and>
   ts_symbol_names ! 44 = ''->'' \<and> ts_symbol_names ! 45 = ''{'' \<and>
   ts_symbol_names ! 46 = ''}'' \<and> ts_symbol_names ! 47 = ''raises'' \<and>
   ts_symbol_names ! 48 = ''capturing'' \<and> ts_symbol_names ! 49 = ''escaping'' \<and>
   ts_symbol_names ! 50 = ''thin'' \<and> ts_symbol_names ! 51 = ''abi'' \<and>
   ts_symbol_names ! 52 = ''_'' \<and> ts_symbol_names ! 53 = ''**'' \<and>
   ts_symbol_names ! 54 = ''global'' \<and> ts_symbol_names ! 55 = ''nonlocal'' \<and>
   ts_symbol_names ! 56 = ''exec'' \<and> ts_symbol_names ! 57 = ''type'' \<and>
   ts_symbol_names ! 58 = ''='' \<and> ts_symbol_names ! 59 = ''class'' \<and>
   ts_symbol_names ! 60 = ''struct'' \<and> ts_symbol_names ! 61 = ''mut'' \<and>
   ts_symbol_names ! 62 = ''out'' \<and> ts_symbol_names ! 63 = ''//'' \<and>
   ts_symbol_names ! 64 = ''trait'' \<and> ts_symbol_names ! 65 = ''inferred'' \<and>
   ts_symbol_names ! 66 = ''except*'' \<and> ts_symbol_names ! 67 = ''@'' \<and>
   ts_symbol_names ! 68 = ''-'' \<and> ts_symbol_names ! 69 = ''|'' \<and>
   ts_symbol_names ! 70 = ''+'' \<and> ts_symbol_names ! 71 = ''ref'' \<and>
   ts_symbol_names ! 72 = ''borrowed'' \<and> ts_symbol_names ! 73 = ''inout'' \<and>
   ts_symbol_names ! 74 = ''owned'' \<and> ts_symbol_names ! 75 = ''read'' \<and>
   ts_symbol_names ! 76 = ''var'' \<and> ts_symbol_names ! 77 = ''deinit'' \<and>
   ts_symbol_names ! 78 = ''unified'' \<and> ts_symbol_names ! 79 = ''where'' \<and>
   ts_symbol_names ! 80 = ''self'' \<and> ts_symbol_names ! 81 = ''^'' \<and>
   ts_symbol_names ! 82 = ''not'' \<and> ts_symbol_names ! 83 = ''and'' \<and>
   ts_symbol_names ! 84 = ''or'' \<and> ts_symbol_names ! 85 = ''/'' \<and>
   ts_symbol_names ! 86 = ''%'' \<and> ts_symbol_names ! 87 = ''&'' \<and>
   ts_symbol_names ! 88 = ''<<'' \<and> ts_symbol_names ! 89 = ''~'' \<and>
   ts_symbol_names ! 90 = ''is'' \<and> ts_symbol_names ! 91 = ''<'' \<and>
   ts_symbol_names ! 92 = ''<='' \<and> ts_symbol_names ! 93 = ''=='' \<and>
   ts_symbol_names ! 94 = ''!='' \<and> ts_symbol_names ! 95 = ''>='' \<and>
   ts_symbol_names ! 96 = ''>'' \<and> ts_symbol_names ! 97 = ''<>'' \<and>
   ts_symbol_names ! 98 = ''lambda'' \<and> ts_symbol_names ! 99 = ''+='' \<and>
   ts_symbol_names ! 100 = ''-='' \<and> ts_symbol_names ! 101 = ''*='' \<and>
   ts_symbol_names ! 102 = ''/='' \<and> ts_symbol_names ! 103 = ''@='' \<and>
   ts_symbol_names ! 104 = ''//='' \<and> ts_symbol_names ! 105 = ''%='' \<and>
   ts_symbol_names ! 106 = ''**='' \<and> ts_symbol_names ! 107 = ''>>='' \<and>
   ts_symbol_names ! 108 = ''<<='' \<and> ts_symbol_names ! 109 = ''&='' \<and>
   ts_symbol_names ! 110 = ''^='' \<and> ts_symbol_names ! 111 = ''|='' \<and>
   ts_symbol_names ! 112 = ''yield'' \<and> ts_symbol_names ! 113 = ''ellipsis'' \<and>
   ts_symbol_names ! 114 = ''__mlir_type'' \<and>
   ts_symbol_names ! 115 = ''escape_sequence'' \<and> ts_symbol_names ! 116 = [CHR 0x5C] \<and>
   ts_symbol_names ! 117 = ''format_specifier_token1'' \<and>
   ts_symbol_names ! 118 = ''type_conversion'' \<and> ts_symbol_names ! 119 = ''integer'' \<and>
   ts_symbol_names ! 120 = ''float'' \<and> ts_symbol_names ! 121 = ''await'' \<and>
   ts_symbol_names ! 122 = ''true'' \<and> ts_symbol_names ! 123 = ''false'' \<and>
   ts_symbol_names ! 124 = ''none'' \<and> ts_symbol_names ! 125 = ''comment'' \<and>
   ts_symbol_names ! 126 = ''line_continuation'' \<and>
   ts_symbol_names ! 127 = ''_newline'' \<and> ts_symbol_names ! 128 = ''_indent'' \<and>
   ts_symbol_names ! 129 = ''_dedent'' \<and> ts_symbol_names ! 130 = ''string_start'' \<and>
   ts_symbol_names ! 131 = ''_string_content'' \<and>
   ts_symbol_names ! 132 = ''escape_interpolation'' \<and>
   ts_symbol_names ! 133 = ''string_end'' \<and>
   ts_symbol_names ! 134 = ''_mlir_backtick'' \<and> ts_symbol_names ! 135 = ''type'' \<and>
   ts_symbol_names ! 136 = ''integer'' \<and> ts_symbol_names ! 137 = ''mlir_punctuation'' \<and>
   ts_symbol_names ! 138 = ''module'' \<and> ts_symbol_names ! 139 = ''_statement'' \<and>
   ts_symbol_names ! 140 = ''_simple_statements'' \<and>
   ts_symbol_names ! 141 = ''import_statement'' \<and>
   ts_symbol_names ! 142 = ''import_prefix'' \<and>
   ts_symbol_names ! 143 = ''relative_import'' \<and>
   ts_symbol_names ! 144 = ''future_import_statement'' \<and>
   ts_symbol_names ! 145 = ''import_from_statement'' \<and>
   ts_symbol_names ! 146 = ''_import_list'' \<and>
   ts_symbol_names ! 147 = ''aliased_import'' \<and>
   ts_symbol_names ! 148 = ''wildcard_import'' \<and> ts_symbol_names ! 149 = ''print_statement''"
proof -
  have "list_all (\<lambda>(i, x). ts_symbol_names ! i = x) symbol_names_0"
    using symbol_row_nth(1) by (fastforce simp: list_all_iff symbol_name_rows_def)
  then show ?thesis unfolding symbol_names_0_def by (simp add: symbol_number_defs)
qed

lemma name_facts_1:
  "ts_symbol_names ! 150 = ''chevron'' \<and> ts_symbol_names ! 151 = ''assert_statement'' \<and>
   ts_symbol_names ! 152 = ''comptime_assert_statement'' \<and>
   ts_symbol_names ! 153 = ''expression_statement'' \<and>
   ts_symbol_names ! 154 = ''tuple_expression'' \<and>
   ts_symbol_names ! 155 = ''named_expression'' \<and>
   ts_symbol_names ! 156 = ''_named_expression_lhs'' \<and>
   ts_symbol_names ! 157 = ''return_statement'' \<and>
   ts_symbol_names ! 158 = ''delete_statement'' \<and>
   ts_symbol_names ! 159 = ''raise_statement'' \<and>
   ts_symbol_names ! 160 = ''pass_statement'' \<and>
   ts_symbol_names ! 161 = ''break_statement'' \<and>
   ts_symbol_names ! 162 = ''continue_statement'' \<and>
   ts_symbol_names ! 163 = ''extension_definition'' \<and>
   ts_symbol_names ! 164 = ''mlir_region'' \<and>
   ts_symbol_names ! 165 = ''comptime_statement'' \<and>
   ts_symbol_names ! 166 = ''if_statement'' \<and> ts_symbol_names ! 167 = ''elif_clause'' \<and>
   ts_symbol_names ! 168 = ''else_clause'' \<and>
   ts_symbol_names ! 169 = ''match_statement'' \<and> ts_symbol_names ! 170 = ''block'' \<and>
   ts_symbol_names ! 171 = ''case_clause'' \<and>
   ts_symbol_names ! 172 = ''for_statement'' \<and>
   ts_symbol_names ! 173 = ''while_statement'' \<and>
   ts_symbol_names ! 174 = ''try_statement'' \<and>
   ts_symbol_names ! 175 = ''except_clause'' \<and>
   ts_symbol_names ! 176 = ''finally_clause'' \<and>
   ts_symbol_names ! 177 = ''with_statement'' \<and>
   ts_symbol_names ! 178 = ''with_clause'' \<and> ts_symbol_names ! 179 = ''with_item'' \<and>
   ts_symbol_names ! 180 = ''function_definition'' \<and>
   ts_symbol_names ! 181 = ''result_convention'' \<and>
   ts_symbol_names ! 182 = ''_function_effects'' \<and>
   ts_symbol_names ! 183 = ''abi_specifier'' \<and> ts_symbol_names ! 184 = ''type'' \<and>
   ts_symbol_names ! 185 = ''capture_list'' \<and>
   ts_symbol_names ! 186 = ''wildcard_origin'' \<and>
   ts_symbol_names ! 187 = ''parameters'' \<and>
   ts_symbol_names ! 188 = ''lambda_parameters'' \<and>
   ts_symbol_names ! 189 = ''list_splat'' \<and>
   ts_symbol_names ! 190 = ''dictionary_splat'' \<and>
   ts_symbol_names ! 191 = ''global_statement'' \<and>
   ts_symbol_names ! 192 = ''nonlocal_statement'' \<and>
   ts_symbol_names ! 193 = ''exec_statement'' \<and>
   ts_symbol_names ! 194 = ''type_alias_statement'' \<and>
   ts_symbol_names ! 195 = ''parameterized_alias_statement'' \<and>
   ts_symbol_names ! 196 = ''class_definition'' \<and>
   ts_symbol_names ! 197 = ''argument_list'' \<and>
   ts_symbol_names ! 198 = ''type_parameter'' \<and>
   ts_symbol_names ! 199 = ''_type_parameter_default'' \<and>
   ts_symbol_names ! 200 = ''infer_separator'' \<and>
   ts_symbol_names ! 201 = ''trait_definition'' \<and>
   ts_symbol_names ! 202 = ''trait_list'' \<and>
   ts_symbol_names ! 203 = ''parenthesized_list_splat'' \<and>
   ts_symbol_names ! 204 = ''argument_list'' \<and>
   ts_symbol_names ! 205 = ''parameter_list'' \<and>
   ts_symbol_names ! 206 = ''decorated_definition'' \<and>
   ts_symbol_names ! 207 = ''except_group_clause'' \<and>
   ts_symbol_names ! 208 = ''decorator'' \<and> ts_symbol_names ! 209 = ''block'' \<and>
   ts_symbol_names ! 210 = ''expression_list'' \<and>
   ts_symbol_names ! 211 = ''dotted_name'' \<and> ts_symbol_names ! 212 = ''case_pattern'' \<and>
   ts_symbol_names ! 213 = ''_simple_pattern'' \<and>
   ts_symbol_names ! 214 = ''as_pattern'' \<and> ts_symbol_names ! 215 = ''union_pattern'' \<and>
   ts_symbol_names ! 216 = ''list_pattern'' \<and>
   ts_symbol_names ! 217 = ''tuple_pattern'' \<and>
   ts_symbol_names ! 218 = ''dict_pattern'' \<and>
   ts_symbol_names ! 219 = ''_key_value_pattern'' \<and>
   ts_symbol_names ! 220 = ''keyword_pattern'' \<and>
   ts_symbol_names ! 221 = ''splat_pattern'' \<and>
   ts_symbol_names ! 222 = ''class_pattern'' \<and>
   ts_symbol_names ! 223 = ''complex_pattern'' \<and>
   ts_symbol_names ! 224 = ''_parameters'' \<and> ts_symbol_names ! 225 = ''_patterns'' \<and>
   ts_symbol_names ! 226 = ''parameter'' \<and> ts_symbol_names ! 227 = ''pattern'' \<and>
   ts_symbol_names ! 228 = ''tuple_pattern'' \<and>
   ts_symbol_names ! 229 = ''list_pattern'' \<and>
   ts_symbol_names ! 230 = ''_ref_convention'' \<and>
   ts_symbol_names ! 231 = ''argument_convention'' \<and>
   ts_symbol_names ! 232 = ''unified_clause'' \<and>
   ts_symbol_names ! 233 = ''where_clause'' \<and>
   ts_symbol_names ! 234 = ''self_parameter'' \<and>
   ts_symbol_names ! 235 = ''typed_parameter'' \<and>
   ts_symbol_names ! 236 = ''default_parameter'' \<and>
   ts_symbol_names ! 237 = ''typed_default_parameter'' \<and>
   ts_symbol_names ! 238 = ''list_splat_pattern'' \<and>
   ts_symbol_names ! 239 = ''dictionary_splat_pattern'' \<and>
   ts_symbol_names ! 240 = ''as_pattern'' \<and>
   ts_symbol_names ! 241 = ''_expression_within_for_in_clause'' \<and>
   ts_symbol_names ! 242 = ''expression'' \<and>
   ts_symbol_names ! 243 = ''primary_expression'' \<and>
   ts_symbol_names ! 244 = ''comptime_expression'' \<and>
   ts_symbol_names ! 245 = ''transfer_expression'' \<and>
   ts_symbol_names ! 246 = ''not_operator'' \<and>
   ts_symbol_names ! 247 = ''boolean_operator'' \<and>
   ts_symbol_names ! 248 = ''binary_operator'' \<and>
   ts_symbol_names ! 249 = ''unary_operator'' \<and> ts_symbol_names ! 250 = ''not in'' \<and>
   ts_symbol_names ! 251 = ''is not'' \<and>
   ts_symbol_names ! 252 = ''comparison_operator'' \<and>
   ts_symbol_names ! 253 = ''lambda'' \<and> ts_symbol_names ! 254 = ''lambda'' \<and>
   ts_symbol_names ! 255 = ''assignment'' \<and>
   ts_symbol_names ! 256 = ''augmented_assignment'' \<and>
   ts_symbol_names ! 257 = ''pattern_list'' \<and>
   ts_symbol_names ! 258 = ''_right_hand_side'' \<and> ts_symbol_names ! 259 = ''yield'' \<and>
   ts_symbol_names ! 260 = ''attribute'' \<and> ts_symbol_names ! 261 = ''subscript'' \<and>
   ts_symbol_names ! 262 = ''slice'' \<and> ts_symbol_names ! 263 = ''call'' \<and>
   ts_symbol_names ! 264 = ''type'' \<and> ts_symbol_names ! 265 = ''called_type'' \<and>
   ts_symbol_names ! 266 = ''function_type'' \<and> ts_symbol_names ! 267 = ''splat_type'' \<and>
   ts_symbol_names ! 268 = ''generic_type'' \<and> ts_symbol_names ! 269 = ''union_type'' \<and>
   ts_symbol_names ! 270 = ''intersection_type'' \<and>
   ts_symbol_names ! 271 = ''_intersection_operand'' \<and>
   ts_symbol_names ! 272 = ''constrained_type'' \<and>
   ts_symbol_names ! 273 = ''member_type'' \<and>
   ts_symbol_names ! 274 = ''keyword_argument'' \<and>
   ts_symbol_names ! 275 = ''keyword_argument'' \<and>
   ts_symbol_names ! 276 = ''mlir_fragment'' \<and> ts_symbol_names ! 277 = ''mlir_type'' \<and>
   ts_symbol_names ! 278 = ''list'' \<and> ts_symbol_names ! 279 = ''set'' \<and>
   ts_symbol_names ! 280 = ''tuple'' \<and> ts_symbol_names ! 281 = ''dictionary'' \<and>
   ts_symbol_names ! 282 = ''pair'' \<and> ts_symbol_names ! 283 = ''struct_literal'' \<and>
   ts_symbol_names ! 284 = ''struct_literal_field'' \<and>
   ts_symbol_names ! 285 = ''list_comprehension'' \<and>
   ts_symbol_names ! 286 = ''dictionary_comprehension'' \<and>
   ts_symbol_names ! 287 = ''set_comprehension'' \<and>
   ts_symbol_names ! 288 = ''generator_expression'' \<and>
   ts_symbol_names ! 289 = ''_comprehension_clauses'' \<and>
   ts_symbol_names ! 290 = ''parenthesized_expression'' \<and>
   ts_symbol_names ! 291 = ''_collection_elements'' \<and>
   ts_symbol_names ! 292 = ''for_in_clause'' \<and> ts_symbol_names ! 293 = ''if_clause'' \<and>
   ts_symbol_names ! 294 = ''conditional_expression'' \<and>
   ts_symbol_names ! 295 = ''concatenated_string'' \<and>
   ts_symbol_names ! 296 = ''string'' \<and> ts_symbol_names ! 297 = ''string_content'' \<and>
   ts_symbol_names ! 298 = ''interpolation'' \<and> ts_symbol_names ! 299 = ''_f_expression''"
proof -
  have "list_all (\<lambda>(i, x). ts_symbol_names ! i = x) symbol_names_1"
    using symbol_row_nth(1) by (fastforce simp: list_all_iff symbol_name_rows_def)
  then show ?thesis unfolding symbol_names_1_def by (simp add: symbol_number_defs)
qed

lemma name_facts_2:
  "ts_symbol_names ! 300 = ''_not_escape_sequence'' \<and>
   ts_symbol_names ! 301 = ''format_specifier'' \<and> ts_symbol_names ! 302 = ''await'' \<and>
   ts_symbol_names ! 303 = ''positional_separator'' \<and>
   ts_symbol_names ! 304 = ''keyword_separator'' \<and>
   ts_symbol_names ! 305 = ''module_repeat1'' \<and>
   ts_symbol_names ! 306 = ''_simple_statements_repeat1'' \<and>
   ts_symbol_names ! 307 = ''import_prefix_repeat1'' \<and>
   ts_symbol_names ! 308 = ''_import_list_repeat1'' \<and>
   ts_symbol_names ! 309 = ''print_statement_repeat1'' \<and>
   ts_symbol_names ! 310 = ''assert_statement_repeat1'' \<and>
   ts_symbol_names ! 311 = ''if_statement_repeat1'' \<and>
   ts_symbol_names ! 312 = ''match_statement_repeat1'' \<and>
   ts_symbol_names ! 313 = ''_match_block_repeat1'' \<and>
   ts_symbol_names ! 314 = ''case_clause_repeat1'' \<and>
   ts_symbol_names ! 315 = ''try_statement_repeat1'' \<and>
   ts_symbol_names ! 316 = ''try_statement_repeat2'' \<and>
   ts_symbol_names ! 317 = ''with_clause_repeat1'' \<and>
   ts_symbol_names ! 318 = ''function_definition_repeat1'' \<and>
   ts_symbol_names ! 319 = ''result_convention_repeat1'' \<and>
   ts_symbol_names ! 320 = ''capture_list_repeat1'' \<and>
   ts_symbol_names ! 321 = ''global_statement_repeat1'' \<and>
   ts_symbol_names ! 322 = ''superclass_list_repeat1'' \<and>
   ts_symbol_names ! 323 = ''type_parameter_repeat1'' \<and>
   ts_symbol_names ! 324 = ''argument_list_repeat1'' \<and>
   ts_symbol_names ! 325 = ''parameter_list_repeat1'' \<and>
   ts_symbol_names ! 326 = ''decorated_definition_repeat1'' \<and>
   ts_symbol_names ! 327 = ''dotted_name_repeat1'' \<and>
   ts_symbol_names ! 328 = ''union_pattern_repeat1'' \<and>
   ts_symbol_names ! 329 = ''dict_pattern_repeat1'' \<and>
   ts_symbol_names ! 330 = ''_parameters_repeat1'' \<and>
   ts_symbol_names ! 331 = ''_patterns_repeat1'' \<and>
   ts_symbol_names ! 332 = ''unified_clause_repeat1'' \<and>
   ts_symbol_names ! 333 = ''comparison_operator_repeat1'' \<and>
   ts_symbol_names ! 334 = ''subscript_repeat1'' \<and>
   ts_symbol_names ! 335 = ''called_type_repeat1'' \<and>
   ts_symbol_names ! 336 = ''function_type_repeat1'' \<and>
   ts_symbol_names ! 337 = ''intersection_type_repeat1'' \<and>
   ts_symbol_names ! 338 = ''mlir_fragment_repeat1'' \<and>
   ts_symbol_names ! 339 = ''dictionary_repeat1'' \<and>
   ts_symbol_names ! 340 = ''struct_literal_repeat1'' \<and>
   ts_symbol_names ! 341 = ''_comprehension_clauses_repeat1'' \<and>
   ts_symbol_names ! 342 = ''_collection_elements_repeat1'' \<and>
   ts_symbol_names ! 343 = ''for_in_clause_repeat1'' \<and>
   ts_symbol_names ! 344 = ''concatenated_string_repeat1'' \<and>
   ts_symbol_names ! 345 = ''string_repeat1'' \<and>
   ts_symbol_names ! 346 = ''string_content_repeat1'' \<and>
   ts_symbol_names ! 347 = ''format_specifier_repeat1'' \<and>
   ts_symbol_names ! 348 = ''as_pattern_target'' \<and>
   ts_symbol_names ! 349 = ''format_expression''"
proof -
  have "list_all (\<lambda>(i, x). ts_symbol_names ! i = x) symbol_names_2"
    using symbol_row_nth(1) by (fastforce simp: list_all_iff symbol_name_rows_def)
  then show ?thesis unfolding symbol_names_2_def by (simp add: symbol_number_defs)
qed

lemma public_facts_0:
  "ts_symbol_map ! 0 = 0 \<and> ts_symbol_map ! 1 = 1 \<and> ts_symbol_map ! 2 = 2 \<and>
   ts_symbol_map ! 3 = 3 \<and> ts_symbol_map ! 4 = 4 \<and> ts_symbol_map ! 5 = 5 \<and>
   ts_symbol_map ! 6 = 6 \<and> ts_symbol_map ! 7 = 7 \<and> ts_symbol_map ! 8 = 8 \<and>
   ts_symbol_map ! 9 = 9 \<and> ts_symbol_map ! 10 = 10 \<and> ts_symbol_map ! 11 = 11 \<and>
   ts_symbol_map ! 12 = 12 \<and> ts_symbol_map ! 13 = 13 \<and> ts_symbol_map ! 14 = 14 \<and>
   ts_symbol_map ! 15 = 15 \<and> ts_symbol_map ! 16 = 16 \<and> ts_symbol_map ! 17 = 17 \<and>
   ts_symbol_map ! 18 = 18 \<and> ts_symbol_map ! 19 = 19 \<and> ts_symbol_map ! 20 = 20 \<and>
   ts_symbol_map ! 21 = 21 \<and> ts_symbol_map ! 22 = 22 \<and> ts_symbol_map ! 23 = 23 \<and>
   ts_symbol_map ! 24 = 24 \<and> ts_symbol_map ! 25 = 25 \<and> ts_symbol_map ! 26 = 26 \<and>
   ts_symbol_map ! 27 = 27 \<and> ts_symbol_map ! 28 = 28 \<and> ts_symbol_map ! 29 = 29 \<and>
   ts_symbol_map ! 30 = 30 \<and> ts_symbol_map ! 31 = 31 \<and> ts_symbol_map ! 32 = 32 \<and>
   ts_symbol_map ! 33 = 33 \<and> ts_symbol_map ! 34 = 34 \<and> ts_symbol_map ! 35 = 35 \<and>
   ts_symbol_map ! 36 = 36 \<and> ts_symbol_map ! 37 = 37 \<and> ts_symbol_map ! 38 = 38 \<and>
   ts_symbol_map ! 39 = 39 \<and> ts_symbol_map ! 40 = 40 \<and> ts_symbol_map ! 41 = 41 \<and>
   ts_symbol_map ! 42 = 42 \<and> ts_symbol_map ! 43 = 43 \<and> ts_symbol_map ! 44 = 44 \<and>
   ts_symbol_map ! 45 = 45 \<and> ts_symbol_map ! 46 = 46 \<and> ts_symbol_map ! 47 = 47 \<and>
   ts_symbol_map ! 48 = 48 \<and> ts_symbol_map ! 49 = 49 \<and> ts_symbol_map ! 50 = 50 \<and>
   ts_symbol_map ! 51 = 51 \<and> ts_symbol_map ! 52 = 52 \<and> ts_symbol_map ! 53 = 53 \<and>
   ts_symbol_map ! 54 = 54 \<and> ts_symbol_map ! 55 = 55 \<and> ts_symbol_map ! 56 = 56 \<and>
   ts_symbol_map ! 57 = 57 \<and> ts_symbol_map ! 58 = 58 \<and> ts_symbol_map ! 59 = 59 \<and>
   ts_symbol_map ! 60 = 60 \<and> ts_symbol_map ! 61 = 61 \<and> ts_symbol_map ! 62 = 62 \<and>
   ts_symbol_map ! 63 = 63 \<and> ts_symbol_map ! 64 = 64 \<and> ts_symbol_map ! 65 = 65 \<and>
   ts_symbol_map ! 66 = 66 \<and> ts_symbol_map ! 67 = 67 \<and> ts_symbol_map ! 68 = 68 \<and>
   ts_symbol_map ! 69 = 69 \<and> ts_symbol_map ! 70 = 70 \<and> ts_symbol_map ! 71 = 71 \<and>
   ts_symbol_map ! 72 = 72 \<and> ts_symbol_map ! 73 = 73 \<and> ts_symbol_map ! 74 = 74 \<and>
   ts_symbol_map ! 75 = 75 \<and> ts_symbol_map ! 76 = 76 \<and> ts_symbol_map ! 77 = 77 \<and>
   ts_symbol_map ! 78 = 78 \<and> ts_symbol_map ! 79 = 79 \<and> ts_symbol_map ! 80 = 80 \<and>
   ts_symbol_map ! 81 = 81 \<and> ts_symbol_map ! 82 = 82 \<and> ts_symbol_map ! 83 = 83 \<and>
   ts_symbol_map ! 84 = 84 \<and> ts_symbol_map ! 85 = 85 \<and> ts_symbol_map ! 86 = 86 \<and>
   ts_symbol_map ! 87 = 87 \<and> ts_symbol_map ! 88 = 88 \<and> ts_symbol_map ! 89 = 89 \<and>
   ts_symbol_map ! 90 = 90 \<and> ts_symbol_map ! 91 = 91 \<and> ts_symbol_map ! 92 = 92 \<and>
   ts_symbol_map ! 93 = 93 \<and> ts_symbol_map ! 94 = 94 \<and> ts_symbol_map ! 95 = 95 \<and>
   ts_symbol_map ! 96 = 96 \<and> ts_symbol_map ! 97 = 97 \<and> ts_symbol_map ! 98 = 98 \<and>
   ts_symbol_map ! 99 = 99 \<and> ts_symbol_map ! 100 = 100 \<and>
   ts_symbol_map ! 101 = 101 \<and> ts_symbol_map ! 102 = 102 \<and>
   ts_symbol_map ! 103 = 103 \<and> ts_symbol_map ! 104 = 104 \<and>
   ts_symbol_map ! 105 = 105 \<and> ts_symbol_map ! 106 = 106 \<and>
   ts_symbol_map ! 107 = 107 \<and> ts_symbol_map ! 108 = 108 \<and>
   ts_symbol_map ! 109 = 109 \<and> ts_symbol_map ! 110 = 110 \<and>
   ts_symbol_map ! 111 = 111 \<and> ts_symbol_map ! 112 = 112 \<and>
   ts_symbol_map ! 113 = 113 \<and> ts_symbol_map ! 114 = 114 \<and>
   ts_symbol_map ! 115 = 115 \<and> ts_symbol_map ! 116 = 116 \<and>
   ts_symbol_map ! 117 = 117 \<and> ts_symbol_map ! 118 = 118 \<and>
   ts_symbol_map ! 119 = 119 \<and> ts_symbol_map ! 120 = 120 \<and>
   ts_symbol_map ! 121 = 121 \<and> ts_symbol_map ! 122 = 122 \<and>
   ts_symbol_map ! 123 = 123 \<and> ts_symbol_map ! 124 = 124 \<and>
   ts_symbol_map ! 125 = 125 \<and> ts_symbol_map ! 126 = 126 \<and>
   ts_symbol_map ! 127 = 127 \<and> ts_symbol_map ! 128 = 128 \<and>
   ts_symbol_map ! 129 = 129 \<and> ts_symbol_map ! 130 = 130 \<and>
   ts_symbol_map ! 131 = 131 \<and> ts_symbol_map ! 132 = 132 \<and>
   ts_symbol_map ! 133 = 133 \<and> ts_symbol_map ! 134 = 134 \<and>
   ts_symbol_map ! 135 = 264 \<and> ts_symbol_map ! 136 = 119 \<and>
   ts_symbol_map ! 137 = 137 \<and> ts_symbol_map ! 138 = 138 \<and>
   ts_symbol_map ! 139 = 139 \<and> ts_symbol_map ! 140 = 140 \<and>
   ts_symbol_map ! 141 = 141 \<and> ts_symbol_map ! 142 = 142 \<and>
   ts_symbol_map ! 143 = 143 \<and> ts_symbol_map ! 144 = 144 \<and>
   ts_symbol_map ! 145 = 145 \<and> ts_symbol_map ! 146 = 146 \<and>
   ts_symbol_map ! 147 = 147 \<and> ts_symbol_map ! 148 = 148 \<and> ts_symbol_map ! 149 = 149"
proof -
  have "list_all (\<lambda>(i, x). ts_symbol_map ! i = x) symbol_map_0"
    using symbol_row_nth(2) by (fastforce simp: list_all_iff symbol_map_rows_def)
  then show ?thesis unfolding symbol_map_0_def by (simp add: symbol_number_defs)
qed

lemma public_facts_1:
  "ts_symbol_map ! 150 = 150 \<and> ts_symbol_map ! 151 = 151 \<and>
   ts_symbol_map ! 152 = 152 \<and> ts_symbol_map ! 153 = 153 \<and>
   ts_symbol_map ! 154 = 154 \<and> ts_symbol_map ! 155 = 155 \<and>
   ts_symbol_map ! 156 = 156 \<and> ts_symbol_map ! 157 = 157 \<and>
   ts_symbol_map ! 158 = 158 \<and> ts_symbol_map ! 159 = 159 \<and>
   ts_symbol_map ! 160 = 160 \<and> ts_symbol_map ! 161 = 161 \<and>
   ts_symbol_map ! 162 = 162 \<and> ts_symbol_map ! 163 = 163 \<and>
   ts_symbol_map ! 164 = 164 \<and> ts_symbol_map ! 165 = 165 \<and>
   ts_symbol_map ! 166 = 166 \<and> ts_symbol_map ! 167 = 167 \<and>
   ts_symbol_map ! 168 = 168 \<and> ts_symbol_map ! 169 = 169 \<and>
   ts_symbol_map ! 170 = 209 \<and> ts_symbol_map ! 171 = 171 \<and>
   ts_symbol_map ! 172 = 172 \<and> ts_symbol_map ! 173 = 173 \<and>
   ts_symbol_map ! 174 = 174 \<and> ts_symbol_map ! 175 = 175 \<and>
   ts_symbol_map ! 176 = 176 \<and> ts_symbol_map ! 177 = 177 \<and>
   ts_symbol_map ! 178 = 178 \<and> ts_symbol_map ! 179 = 179 \<and>
   ts_symbol_map ! 180 = 180 \<and> ts_symbol_map ! 181 = 181 \<and>
   ts_symbol_map ! 182 = 182 \<and> ts_symbol_map ! 183 = 183 \<and>
   ts_symbol_map ! 184 = 264 \<and> ts_symbol_map ! 185 = 185 \<and>
   ts_symbol_map ! 186 = 186 \<and> ts_symbol_map ! 187 = 187 \<and>
   ts_symbol_map ! 188 = 188 \<and> ts_symbol_map ! 189 = 189 \<and>
   ts_symbol_map ! 190 = 190 \<and> ts_symbol_map ! 191 = 191 \<and>
   ts_symbol_map ! 192 = 192 \<and> ts_symbol_map ! 193 = 193 \<and>
   ts_symbol_map ! 194 = 194 \<and> ts_symbol_map ! 195 = 195 \<and>
   ts_symbol_map ! 196 = 196 \<and> ts_symbol_map ! 197 = 204 \<and>
   ts_symbol_map ! 198 = 198 \<and> ts_symbol_map ! 199 = 199 \<and>
   ts_symbol_map ! 200 = 200 \<and> ts_symbol_map ! 201 = 201 \<and>
   ts_symbol_map ! 202 = 202 \<and> ts_symbol_map ! 203 = 203 \<and>
   ts_symbol_map ! 204 = 204 \<and> ts_symbol_map ! 205 = 205 \<and>
   ts_symbol_map ! 206 = 206 \<and> ts_symbol_map ! 207 = 207 \<and>
   ts_symbol_map ! 208 = 208 \<and> ts_symbol_map ! 209 = 209 \<and>
   ts_symbol_map ! 210 = 210 \<and> ts_symbol_map ! 211 = 211 \<and>
   ts_symbol_map ! 212 = 212 \<and> ts_symbol_map ! 213 = 213 \<and>
   ts_symbol_map ! 214 = 240 \<and> ts_symbol_map ! 215 = 215 \<and>
   ts_symbol_map ! 216 = 229 \<and> ts_symbol_map ! 217 = 228 \<and>
   ts_symbol_map ! 218 = 218 \<and> ts_symbol_map ! 219 = 219 \<and>
   ts_symbol_map ! 220 = 220 \<and> ts_symbol_map ! 221 = 221 \<and>
   ts_symbol_map ! 222 = 222 \<and> ts_symbol_map ! 223 = 223 \<and>
   ts_symbol_map ! 224 = 224 \<and> ts_symbol_map ! 225 = 225 \<and>
   ts_symbol_map ! 226 = 226 \<and> ts_symbol_map ! 227 = 227 \<and>
   ts_symbol_map ! 228 = 228 \<and> ts_symbol_map ! 229 = 229 \<and>
   ts_symbol_map ! 230 = 230 \<and> ts_symbol_map ! 231 = 231 \<and>
   ts_symbol_map ! 232 = 232 \<and> ts_symbol_map ! 233 = 233 \<and>
   ts_symbol_map ! 234 = 234 \<and> ts_symbol_map ! 235 = 235 \<and>
   ts_symbol_map ! 236 = 236 \<and> ts_symbol_map ! 237 = 237 \<and>
   ts_symbol_map ! 238 = 238 \<and> ts_symbol_map ! 239 = 239 \<and>
   ts_symbol_map ! 240 = 240 \<and> ts_symbol_map ! 241 = 241 \<and>
   ts_symbol_map ! 242 = 242 \<and> ts_symbol_map ! 243 = 243 \<and>
   ts_symbol_map ! 244 = 244 \<and> ts_symbol_map ! 245 = 245 \<and>
   ts_symbol_map ! 246 = 246 \<and> ts_symbol_map ! 247 = 247 \<and>
   ts_symbol_map ! 248 = 248 \<and> ts_symbol_map ! 249 = 249 \<and>
   ts_symbol_map ! 250 = 250 \<and> ts_symbol_map ! 251 = 251 \<and>
   ts_symbol_map ! 252 = 252 \<and> ts_symbol_map ! 253 = 253 \<and>
   ts_symbol_map ! 254 = 253 \<and> ts_symbol_map ! 255 = 255 \<and>
   ts_symbol_map ! 256 = 256 \<and> ts_symbol_map ! 257 = 257 \<and>
   ts_symbol_map ! 258 = 258 \<and> ts_symbol_map ! 259 = 259 \<and>
   ts_symbol_map ! 260 = 260 \<and> ts_symbol_map ! 261 = 261 \<and>
   ts_symbol_map ! 262 = 262 \<and> ts_symbol_map ! 263 = 263 \<and>
   ts_symbol_map ! 264 = 264 \<and> ts_symbol_map ! 265 = 265 \<and>
   ts_symbol_map ! 266 = 266 \<and> ts_symbol_map ! 267 = 267 \<and>
   ts_symbol_map ! 268 = 268 \<and> ts_symbol_map ! 269 = 269 \<and>
   ts_symbol_map ! 270 = 270 \<and> ts_symbol_map ! 271 = 271 \<and>
   ts_symbol_map ! 272 = 272 \<and> ts_symbol_map ! 273 = 273 \<and>
   ts_symbol_map ! 274 = 275 \<and> ts_symbol_map ! 275 = 275 \<and>
   ts_symbol_map ! 276 = 276 \<and> ts_symbol_map ! 277 = 277 \<and>
   ts_symbol_map ! 278 = 278 \<and> ts_symbol_map ! 279 = 279 \<and>
   ts_symbol_map ! 280 = 280 \<and> ts_symbol_map ! 281 = 281 \<and>
   ts_symbol_map ! 282 = 282 \<and> ts_symbol_map ! 283 = 283 \<and>
   ts_symbol_map ! 284 = 284 \<and> ts_symbol_map ! 285 = 285 \<and>
   ts_symbol_map ! 286 = 286 \<and> ts_symbol_map ! 287 = 287 \<and>
   ts_symbol_map ! 288 = 288 \<and> ts_symbol_map ! 289 = 289 \<and>
   ts_symbol_map ! 290 = 290 \<and> ts_symbol_map ! 291 = 291 \<and>
   ts_symbol_map ! 292 = 292 \<and> ts_symbol_map ! 293 = 293 \<and>
   ts_symbol_map ! 294 = 294 \<and> ts_symbol_map ! 295 = 295 \<and>
   ts_symbol_map ! 296 = 296 \<and> ts_symbol_map ! 297 = 297 \<and>
   ts_symbol_map ! 298 = 298 \<and> ts_symbol_map ! 299 = 299"
proof -
  have "list_all (\<lambda>(i, x). ts_symbol_map ! i = x) symbol_map_1"
    using symbol_row_nth(2) by (fastforce simp: list_all_iff symbol_map_rows_def)
  then show ?thesis unfolding symbol_map_1_def by (simp add: symbol_number_defs)
qed

lemma public_facts_2:
  "ts_symbol_map ! 300 = 300 \<and> ts_symbol_map ! 301 = 301 \<and>
   ts_symbol_map ! 302 = 302 \<and> ts_symbol_map ! 303 = 303 \<and>
   ts_symbol_map ! 304 = 304 \<and> ts_symbol_map ! 305 = 305 \<and>
   ts_symbol_map ! 306 = 306 \<and> ts_symbol_map ! 307 = 307 \<and>
   ts_symbol_map ! 308 = 308 \<and> ts_symbol_map ! 309 = 309 \<and>
   ts_symbol_map ! 310 = 310 \<and> ts_symbol_map ! 311 = 311 \<and>
   ts_symbol_map ! 312 = 312 \<and> ts_symbol_map ! 313 = 313 \<and>
   ts_symbol_map ! 314 = 314 \<and> ts_symbol_map ! 315 = 315 \<and>
   ts_symbol_map ! 316 = 316 \<and> ts_symbol_map ! 317 = 317 \<and>
   ts_symbol_map ! 318 = 318 \<and> ts_symbol_map ! 319 = 319 \<and>
   ts_symbol_map ! 320 = 320 \<and> ts_symbol_map ! 321 = 321 \<and>
   ts_symbol_map ! 322 = 322 \<and> ts_symbol_map ! 323 = 323 \<and>
   ts_symbol_map ! 324 = 324 \<and> ts_symbol_map ! 325 = 325 \<and>
   ts_symbol_map ! 326 = 326 \<and> ts_symbol_map ! 327 = 327 \<and>
   ts_symbol_map ! 328 = 328 \<and> ts_symbol_map ! 329 = 329 \<and>
   ts_symbol_map ! 330 = 330 \<and> ts_symbol_map ! 331 = 331 \<and>
   ts_symbol_map ! 332 = 332 \<and> ts_symbol_map ! 333 = 333 \<and>
   ts_symbol_map ! 334 = 334 \<and> ts_symbol_map ! 335 = 335 \<and>
   ts_symbol_map ! 336 = 336 \<and> ts_symbol_map ! 337 = 337 \<and>
   ts_symbol_map ! 338 = 338 \<and> ts_symbol_map ! 339 = 339 \<and>
   ts_symbol_map ! 340 = 340 \<and> ts_symbol_map ! 341 = 341 \<and>
   ts_symbol_map ! 342 = 342 \<and> ts_symbol_map ! 343 = 343 \<and>
   ts_symbol_map ! 344 = 344 \<and> ts_symbol_map ! 345 = 345 \<and>
   ts_symbol_map ! 346 = 346 \<and> ts_symbol_map ! 347 = 347 \<and>
   ts_symbol_map ! 348 = 348 \<and> ts_symbol_map ! 349 = 349"
proof -
  have "list_all (\<lambda>(i, x). ts_symbol_map ! i = x) symbol_map_2"
    using symbol_row_nth(2) by (fastforce simp: list_all_iff symbol_map_rows_def)
  then show ?thesis unfolding symbol_map_2_def by (simp add: symbol_number_defs)
qed

lemma metadata_facts_0:
  "ts_symbol_metadata ! 0 = symbol_metadata False True False \<and>
   ts_symbol_metadata ! 1 = symbol_metadata True True False \<and>
   ts_symbol_metadata ! 2 = symbol_metadata True False False \<and>
   ts_symbol_metadata ! 3 = symbol_metadata True False False \<and>
   ts_symbol_metadata ! 4 = symbol_metadata True False False \<and>
   ts_symbol_metadata ! 5 = symbol_metadata True False False \<and>
   ts_symbol_metadata ! 6 = symbol_metadata True False False \<and>
   ts_symbol_metadata ! 7 = symbol_metadata True False False \<and>
   ts_symbol_metadata ! 8 = symbol_metadata True False False \<and>
   ts_symbol_metadata ! 9 = symbol_metadata True False False \<and>
   ts_symbol_metadata ! 10 = symbol_metadata True False False \<and>
   ts_symbol_metadata ! 11 = symbol_metadata True False False \<and>
   ts_symbol_metadata ! 12 = symbol_metadata True False False \<and>
   ts_symbol_metadata ! 13 = symbol_metadata True False False \<and>
   ts_symbol_metadata ! 14 = symbol_metadata True False False \<and>
   ts_symbol_metadata ! 15 = symbol_metadata True False False \<and>
   ts_symbol_metadata ! 16 = symbol_metadata True False False \<and>
   ts_symbol_metadata ! 17 = symbol_metadata True False False \<and>
   ts_symbol_metadata ! 18 = symbol_metadata True False False \<and>
   ts_symbol_metadata ! 19 = symbol_metadata True False False \<and>
   ts_symbol_metadata ! 20 = symbol_metadata True False False \<and>
   ts_symbol_metadata ! 21 = symbol_metadata True False False \<and>
   ts_symbol_metadata ! 22 = symbol_metadata True False False \<and>
   ts_symbol_metadata ! 23 = symbol_metadata True False False \<and>
   ts_symbol_metadata ! 24 = symbol_metadata True False False \<and>
   ts_symbol_metadata ! 25 = symbol_metadata True False False \<and>
   ts_symbol_metadata ! 26 = symbol_metadata True False False \<and>
   ts_symbol_metadata ! 27 = symbol_metadata True False False \<and>
   ts_symbol_metadata ! 28 = symbol_metadata True False False \<and>
   ts_symbol_metadata ! 29 = symbol_metadata True False False \<and>
   ts_symbol_metadata ! 30 = symbol_metadata True False False \<and>
   ts_symbol_metadata ! 31 = symbol_metadata True False False \<and>
   ts_symbol_metadata ! 32 = symbol_metadata True False False \<and>
   ts_symbol_metadata ! 33 = symbol_metadata True False False \<and>
   ts_symbol_metadata ! 34 = symbol_metadata True False False \<and>
   ts_symbol_metadata ! 35 = symbol_metadata True False False \<and>
   ts_symbol_metadata ! 36 = symbol_metadata True False False"
proof -
  have "list_all (\<lambda>(i, x). ts_symbol_metadata ! i = x) symbol_metadata_0"
    using symbol_row_nth(3) by (fastforce simp: list_all_iff symbol_metadata_rows_def)
  then show ?thesis unfolding symbol_metadata_0_def by (simp add: symbol_number_defs)
qed

lemma metadata_facts_1:
  "ts_symbol_metadata ! 37 = symbol_metadata True False False \<and>
   ts_symbol_metadata ! 38 = symbol_metadata True False False \<and>
   ts_symbol_metadata ! 39 = symbol_metadata True False False \<and>
   ts_symbol_metadata ! 40 = symbol_metadata True False False \<and>
   ts_symbol_metadata ! 41 = symbol_metadata True False False \<and>
   ts_symbol_metadata ! 42 = symbol_metadata True False False \<and>
   ts_symbol_metadata ! 43 = symbol_metadata True False False \<and>
   ts_symbol_metadata ! 44 = symbol_metadata True False False \<and>
   ts_symbol_metadata ! 45 = symbol_metadata True False False \<and>
   ts_symbol_metadata ! 46 = symbol_metadata True False False \<and>
   ts_symbol_metadata ! 47 = symbol_metadata True False False \<and>
   ts_symbol_metadata ! 48 = symbol_metadata True False False \<and>
   ts_symbol_metadata ! 49 = symbol_metadata True False False \<and>
   ts_symbol_metadata ! 50 = symbol_metadata True False False \<and>
   ts_symbol_metadata ! 51 = symbol_metadata True False False \<and>
   ts_symbol_metadata ! 52 = symbol_metadata True False False \<and>
   ts_symbol_metadata ! 53 = symbol_metadata True False False \<and>
   ts_symbol_metadata ! 54 = symbol_metadata True False False \<and>
   ts_symbol_metadata ! 55 = symbol_metadata True False False \<and>
   ts_symbol_metadata ! 56 = symbol_metadata True False False \<and>
   ts_symbol_metadata ! 57 = symbol_metadata True False False \<and>
   ts_symbol_metadata ! 58 = symbol_metadata True False False \<and>
   ts_symbol_metadata ! 59 = symbol_metadata True False False \<and>
   ts_symbol_metadata ! 60 = symbol_metadata True False False \<and>
   ts_symbol_metadata ! 61 = symbol_metadata True False False \<and>
   ts_symbol_metadata ! 62 = symbol_metadata True False False \<and>
   ts_symbol_metadata ! 63 = symbol_metadata True False False \<and>
   ts_symbol_metadata ! 64 = symbol_metadata True False False \<and>
   ts_symbol_metadata ! 65 = symbol_metadata True False False \<and>
   ts_symbol_metadata ! 66 = symbol_metadata True False False \<and>
   ts_symbol_metadata ! 67 = symbol_metadata True False False \<and>
   ts_symbol_metadata ! 68 = symbol_metadata True False False \<and>
   ts_symbol_metadata ! 69 = symbol_metadata True False False \<and>
   ts_symbol_metadata ! 70 = symbol_metadata True False False \<and>
   ts_symbol_metadata ! 71 = symbol_metadata True False False \<and>
   ts_symbol_metadata ! 72 = symbol_metadata True False False \<and>
   ts_symbol_metadata ! 73 = symbol_metadata True False False"
proof -
  have "list_all (\<lambda>(i, x). ts_symbol_metadata ! i = x) symbol_metadata_1"
    using symbol_row_nth(3) by (fastforce simp: list_all_iff symbol_metadata_rows_def)
  then show ?thesis unfolding symbol_metadata_1_def by (simp add: symbol_number_defs)
qed

lemma metadata_facts_2:
  "ts_symbol_metadata ! 74 = symbol_metadata True False False \<and>
   ts_symbol_metadata ! 75 = symbol_metadata True False False \<and>
   ts_symbol_metadata ! 76 = symbol_metadata True False False \<and>
   ts_symbol_metadata ! 77 = symbol_metadata True False False \<and>
   ts_symbol_metadata ! 78 = symbol_metadata True False False \<and>
   ts_symbol_metadata ! 79 = symbol_metadata True False False \<and>
   ts_symbol_metadata ! 80 = symbol_metadata True False False \<and>
   ts_symbol_metadata ! 81 = symbol_metadata True False False \<and>
   ts_symbol_metadata ! 82 = symbol_metadata True False False \<and>
   ts_symbol_metadata ! 83 = symbol_metadata True False False \<and>
   ts_symbol_metadata ! 84 = symbol_metadata True False False \<and>
   ts_symbol_metadata ! 85 = symbol_metadata True False False \<and>
   ts_symbol_metadata ! 86 = symbol_metadata True False False \<and>
   ts_symbol_metadata ! 87 = symbol_metadata True False False \<and>
   ts_symbol_metadata ! 88 = symbol_metadata True False False \<and>
   ts_symbol_metadata ! 89 = symbol_metadata True False False \<and>
   ts_symbol_metadata ! 90 = symbol_metadata True False False \<and>
   ts_symbol_metadata ! 91 = symbol_metadata True False False \<and>
   ts_symbol_metadata ! 92 = symbol_metadata True False False \<and>
   ts_symbol_metadata ! 93 = symbol_metadata True False False \<and>
   ts_symbol_metadata ! 94 = symbol_metadata True False False \<and>
   ts_symbol_metadata ! 95 = symbol_metadata True False False \<and>
   ts_symbol_metadata ! 96 = symbol_metadata True False False \<and>
   ts_symbol_metadata ! 97 = symbol_metadata True False False \<and>
   ts_symbol_metadata ! 98 = symbol_metadata True False False \<and>
   ts_symbol_metadata ! 99 = symbol_metadata True False False \<and>
   ts_symbol_metadata ! 100 = symbol_metadata True False False \<and>
   ts_symbol_metadata ! 101 = symbol_metadata True False False \<and>
   ts_symbol_metadata ! 102 = symbol_metadata True False False \<and>
   ts_symbol_metadata ! 103 = symbol_metadata True False False \<and>
   ts_symbol_metadata ! 104 = symbol_metadata True False False \<and>
   ts_symbol_metadata ! 105 = symbol_metadata True False False \<and>
   ts_symbol_metadata ! 106 = symbol_metadata True False False \<and>
   ts_symbol_metadata ! 107 = symbol_metadata True False False \<and>
   ts_symbol_metadata ! 108 = symbol_metadata True False False \<and>
   ts_symbol_metadata ! 109 = symbol_metadata True False False \<and>
   ts_symbol_metadata ! 110 = symbol_metadata True False False"
proof -
  have "list_all (\<lambda>(i, x). ts_symbol_metadata ! i = x) symbol_metadata_2"
    using symbol_row_nth(3) by (fastforce simp: list_all_iff symbol_metadata_rows_def)
  then show ?thesis unfolding symbol_metadata_2_def by (simp add: symbol_number_defs)
qed

lemma metadata_facts_3:
  "ts_symbol_metadata ! 111 = symbol_metadata True False False \<and>
   ts_symbol_metadata ! 112 = symbol_metadata True False False \<and>
   ts_symbol_metadata ! 113 = symbol_metadata True True False \<and>
   ts_symbol_metadata ! 114 = symbol_metadata True False False \<and>
   ts_symbol_metadata ! 115 = symbol_metadata True True False \<and>
   ts_symbol_metadata ! 116 = symbol_metadata True False False \<and>
   ts_symbol_metadata ! 117 = symbol_metadata False False False \<and>
   ts_symbol_metadata ! 118 = symbol_metadata True True False \<and>
   ts_symbol_metadata ! 119 = symbol_metadata True True False \<and>
   ts_symbol_metadata ! 120 = symbol_metadata True True False \<and>
   ts_symbol_metadata ! 121 = symbol_metadata True False False \<and>
   ts_symbol_metadata ! 122 = symbol_metadata True True False \<and>
   ts_symbol_metadata ! 123 = symbol_metadata True True False \<and>
   ts_symbol_metadata ! 124 = symbol_metadata True True False \<and>
   ts_symbol_metadata ! 125 = symbol_metadata True True False \<and>
   ts_symbol_metadata ! 126 = symbol_metadata True True False \<and>
   ts_symbol_metadata ! 127 = symbol_metadata False True False \<and>
   ts_symbol_metadata ! 128 = symbol_metadata False True False \<and>
   ts_symbol_metadata ! 129 = symbol_metadata False True False \<and>
   ts_symbol_metadata ! 130 = symbol_metadata True True False \<and>
   ts_symbol_metadata ! 131 = symbol_metadata False True False \<and>
   ts_symbol_metadata ! 132 = symbol_metadata True True False \<and>
   ts_symbol_metadata ! 133 = symbol_metadata True True False \<and>
   ts_symbol_metadata ! 134 = symbol_metadata False True False \<and>
   ts_symbol_metadata ! 135 = symbol_metadata True True False \<and>
   ts_symbol_metadata ! 136 = symbol_metadata True True False \<and>
   ts_symbol_metadata ! 137 = symbol_metadata True True False \<and>
   ts_symbol_metadata ! 138 = symbol_metadata True True False \<and>
   ts_symbol_metadata ! 139 = symbol_metadata False True False \<and>
   ts_symbol_metadata ! 140 = symbol_metadata False True False \<and>
   ts_symbol_metadata ! 141 = symbol_metadata True True False \<and>
   ts_symbol_metadata ! 142 = symbol_metadata True True False \<and>
   ts_symbol_metadata ! 143 = symbol_metadata True True False \<and>
   ts_symbol_metadata ! 144 = symbol_metadata True True False \<and>
   ts_symbol_metadata ! 145 = symbol_metadata True True False \<and>
   ts_symbol_metadata ! 146 = symbol_metadata False True False \<and>
   ts_symbol_metadata ! 147 = symbol_metadata True True False"
proof -
  have "list_all (\<lambda>(i, x). ts_symbol_metadata ! i = x) symbol_metadata_3"
    using symbol_row_nth(3) by (fastforce simp: list_all_iff symbol_metadata_rows_def)
  then show ?thesis unfolding symbol_metadata_3_def by (simp add: symbol_number_defs)
qed

lemma metadata_facts_4:
  "ts_symbol_metadata ! 148 = symbol_metadata True True False \<and>
   ts_symbol_metadata ! 149 = symbol_metadata True True False \<and>
   ts_symbol_metadata ! 150 = symbol_metadata True True False \<and>
   ts_symbol_metadata ! 151 = symbol_metadata True True False \<and>
   ts_symbol_metadata ! 152 = symbol_metadata True True False \<and>
   ts_symbol_metadata ! 153 = symbol_metadata False True True \<and>
   ts_symbol_metadata ! 154 = symbol_metadata True True False \<and>
   ts_symbol_metadata ! 155 = symbol_metadata True True False \<and>
   ts_symbol_metadata ! 156 = symbol_metadata False True False \<and>
   ts_symbol_metadata ! 157 = symbol_metadata True True False \<and>
   ts_symbol_metadata ! 158 = symbol_metadata True True False \<and>
   ts_symbol_metadata ! 159 = symbol_metadata True True False \<and>
   ts_symbol_metadata ! 160 = symbol_metadata True True False \<and>
   ts_symbol_metadata ! 161 = symbol_metadata True True False \<and>
   ts_symbol_metadata ! 162 = symbol_metadata True True False \<and>
   ts_symbol_metadata ! 163 = symbol_metadata True True False \<and>
   ts_symbol_metadata ! 164 = symbol_metadata True True False \<and>
   ts_symbol_metadata ! 165 = symbol_metadata True True False \<and>
   ts_symbol_metadata ! 166 = symbol_metadata True True False \<and>
   ts_symbol_metadata ! 167 = symbol_metadata True True False \<and>
   ts_symbol_metadata ! 168 = symbol_metadata True True False \<and>
   ts_symbol_metadata ! 169 = symbol_metadata True True False \<and>
   ts_symbol_metadata ! 170 = symbol_metadata True True False \<and>
   ts_symbol_metadata ! 171 = symbol_metadata True True False \<and>
   ts_symbol_metadata ! 172 = symbol_metadata True True False \<and>
   ts_symbol_metadata ! 173 = symbol_metadata True True False \<and>
   ts_symbol_metadata ! 174 = symbol_metadata True True False \<and>
   ts_symbol_metadata ! 175 = symbol_metadata True True False \<and>
   ts_symbol_metadata ! 176 = symbol_metadata True True False \<and>
   ts_symbol_metadata ! 177 = symbol_metadata True True False \<and>
   ts_symbol_metadata ! 178 = symbol_metadata True True False \<and>
   ts_symbol_metadata ! 179 = symbol_metadata True True False \<and>
   ts_symbol_metadata ! 180 = symbol_metadata True True False \<and>
   ts_symbol_metadata ! 181 = symbol_metadata True True False \<and>
   ts_symbol_metadata ! 182 = symbol_metadata False False False \<and>
   ts_symbol_metadata ! 183 = symbol_metadata True True False \<and>
   ts_symbol_metadata ! 184 = symbol_metadata True True False"
proof -
  have "list_all (\<lambda>(i, x). ts_symbol_metadata ! i = x) symbol_metadata_4"
    using symbol_row_nth(3) by (fastforce simp: list_all_iff symbol_metadata_rows_def)
  then show ?thesis unfolding symbol_metadata_4_def by (simp add: symbol_number_defs)
qed

lemma metadata_facts_5:
  "ts_symbol_metadata ! 185 = symbol_metadata True True False \<and>
   ts_symbol_metadata ! 186 = symbol_metadata True True False \<and>
   ts_symbol_metadata ! 187 = symbol_metadata True True False \<and>
   ts_symbol_metadata ! 188 = symbol_metadata True True False \<and>
   ts_symbol_metadata ! 189 = symbol_metadata True True False \<and>
   ts_symbol_metadata ! 190 = symbol_metadata True True False \<and>
   ts_symbol_metadata ! 191 = symbol_metadata True True False \<and>
   ts_symbol_metadata ! 192 = symbol_metadata True True False \<and>
   ts_symbol_metadata ! 193 = symbol_metadata True True False \<and>
   ts_symbol_metadata ! 194 = symbol_metadata True True False \<and>
   ts_symbol_metadata ! 195 = symbol_metadata True True False \<and>
   ts_symbol_metadata ! 196 = symbol_metadata True True False \<and>
   ts_symbol_metadata ! 197 = symbol_metadata True True False \<and>
   ts_symbol_metadata ! 198 = symbol_metadata True True False \<and>
   ts_symbol_metadata ! 199 = symbol_metadata False True False \<and>
   ts_symbol_metadata ! 200 = symbol_metadata True True False \<and>
   ts_symbol_metadata ! 201 = symbol_metadata True True False \<and>
   ts_symbol_metadata ! 202 = symbol_metadata True True False \<and>
   ts_symbol_metadata ! 203 = symbol_metadata True True False \<and>
   ts_symbol_metadata ! 204 = symbol_metadata True True False \<and>
   ts_symbol_metadata ! 205 = symbol_metadata True True False \<and>
   ts_symbol_metadata ! 206 = symbol_metadata True True False \<and>
   ts_symbol_metadata ! 207 = symbol_metadata True True False \<and>
   ts_symbol_metadata ! 208 = symbol_metadata True True False \<and>
   ts_symbol_metadata ! 209 = symbol_metadata True True False \<and>
   ts_symbol_metadata ! 210 = symbol_metadata True True False \<and>
   ts_symbol_metadata ! 211 = symbol_metadata True True False \<and>
   ts_symbol_metadata ! 212 = symbol_metadata True True False \<and>
   ts_symbol_metadata ! 213 = symbol_metadata False True False \<and>
   ts_symbol_metadata ! 214 = symbol_metadata True True False \<and>
   ts_symbol_metadata ! 215 = symbol_metadata True True False \<and>
   ts_symbol_metadata ! 216 = symbol_metadata True True False \<and>
   ts_symbol_metadata ! 217 = symbol_metadata True True False \<and>
   ts_symbol_metadata ! 218 = symbol_metadata True True False \<and>
   ts_symbol_metadata ! 219 = symbol_metadata False True False \<and>
   ts_symbol_metadata ! 220 = symbol_metadata True True False \<and>
   ts_symbol_metadata ! 221 = symbol_metadata True True False"
proof -
  have "list_all (\<lambda>(i, x). ts_symbol_metadata ! i = x) symbol_metadata_5"
    using symbol_row_nth(3) by (fastforce simp: list_all_iff symbol_metadata_rows_def)
  then show ?thesis unfolding symbol_metadata_5_def by (simp add: symbol_number_defs)
qed

lemma metadata_facts_6:
  "ts_symbol_metadata ! 222 = symbol_metadata True True False \<and>
   ts_symbol_metadata ! 223 = symbol_metadata True True False \<and>
   ts_symbol_metadata ! 224 = symbol_metadata False True False \<and>
   ts_symbol_metadata ! 225 = symbol_metadata False True False \<and>
   ts_symbol_metadata ! 226 = symbol_metadata False True True \<and>
   ts_symbol_metadata ! 227 = symbol_metadata False True True \<and>
   ts_symbol_metadata ! 228 = symbol_metadata True True False \<and>
   ts_symbol_metadata ! 229 = symbol_metadata True True False \<and>
   ts_symbol_metadata ! 230 = symbol_metadata False True False \<and>
   ts_symbol_metadata ! 231 = symbol_metadata True True False \<and>
   ts_symbol_metadata ! 232 = symbol_metadata True True False \<and>
   ts_symbol_metadata ! 233 = symbol_metadata True True False \<and>
   ts_symbol_metadata ! 234 = symbol_metadata True True False \<and>
   ts_symbol_metadata ! 235 = symbol_metadata True True False \<and>
   ts_symbol_metadata ! 236 = symbol_metadata True True False \<and>
   ts_symbol_metadata ! 237 = symbol_metadata True True False \<and>
   ts_symbol_metadata ! 238 = symbol_metadata True True False \<and>
   ts_symbol_metadata ! 239 = symbol_metadata True True False \<and>
   ts_symbol_metadata ! 240 = symbol_metadata True True False \<and>
   ts_symbol_metadata ! 241 = symbol_metadata False True False \<and>
   ts_symbol_metadata ! 242 = symbol_metadata False True True \<and>
   ts_symbol_metadata ! 243 = symbol_metadata False True True \<and>
   ts_symbol_metadata ! 244 = symbol_metadata True True False \<and>
   ts_symbol_metadata ! 245 = symbol_metadata True True False \<and>
   ts_symbol_metadata ! 246 = symbol_metadata True True False \<and>
   ts_symbol_metadata ! 247 = symbol_metadata True True False \<and>
   ts_symbol_metadata ! 248 = symbol_metadata True True False \<and>
   ts_symbol_metadata ! 249 = symbol_metadata True True False \<and>
   ts_symbol_metadata ! 250 = symbol_metadata True False False \<and>
   ts_symbol_metadata ! 251 = symbol_metadata True False False \<and>
   ts_symbol_metadata ! 252 = symbol_metadata True True False \<and>
   ts_symbol_metadata ! 253 = symbol_metadata True True False \<and>
   ts_symbol_metadata ! 254 = symbol_metadata True True False \<and>
   ts_symbol_metadata ! 255 = symbol_metadata True True False \<and>
   ts_symbol_metadata ! 256 = symbol_metadata True True False \<and>
   ts_symbol_metadata ! 257 = symbol_metadata True True False"
proof -
  have "list_all (\<lambda>(i, x). ts_symbol_metadata ! i = x) symbol_metadata_6"
    using symbol_row_nth(3) by (fastforce simp: list_all_iff symbol_metadata_rows_def)
  then show ?thesis unfolding symbol_metadata_6_def by (simp add: symbol_number_defs)
qed

lemma metadata_facts_7:
  "ts_symbol_metadata ! 258 = symbol_metadata False True False \<and>
   ts_symbol_metadata ! 259 = symbol_metadata True True False \<and>
   ts_symbol_metadata ! 260 = symbol_metadata True True False \<and>
   ts_symbol_metadata ! 261 = symbol_metadata True True False \<and>
   ts_symbol_metadata ! 262 = symbol_metadata True True False \<and>
   ts_symbol_metadata ! 263 = symbol_metadata True True False \<and>
   ts_symbol_metadata ! 264 = symbol_metadata True True False \<and>
   ts_symbol_metadata ! 265 = symbol_metadata True True False \<and>
   ts_symbol_metadata ! 266 = symbol_metadata True True False \<and>
   ts_symbol_metadata ! 267 = symbol_metadata True True False \<and>
   ts_symbol_metadata ! 268 = symbol_metadata True True False \<and>
   ts_symbol_metadata ! 269 = symbol_metadata True True False \<and>
   ts_symbol_metadata ! 270 = symbol_metadata True True False \<and>
   ts_symbol_metadata ! 271 = symbol_metadata False True False \<and>
   ts_symbol_metadata ! 272 = symbol_metadata True True False \<and>
   ts_symbol_metadata ! 273 = symbol_metadata True True False \<and>
   ts_symbol_metadata ! 274 = symbol_metadata True True False \<and>
   ts_symbol_metadata ! 275 = symbol_metadata True True False \<and>
   ts_symbol_metadata ! 276 = symbol_metadata True True False \<and>
   ts_symbol_metadata ! 277 = symbol_metadata True True False \<and>
   ts_symbol_metadata ! 278 = symbol_metadata True True False \<and>
   ts_symbol_metadata ! 279 = symbol_metadata True True False \<and>
   ts_symbol_metadata ! 280 = symbol_metadata True True False \<and>
   ts_symbol_metadata ! 281 = symbol_metadata True True False \<and>
   ts_symbol_metadata ! 282 = symbol_metadata True True False \<and>
   ts_symbol_metadata ! 283 = symbol_metadata True True False \<and>
   ts_symbol_metadata ! 284 = symbol_metadata True True False \<and>
   ts_symbol_metadata ! 285 = symbol_metadata True True False \<and>
   ts_symbol_metadata ! 286 = symbol_metadata True True False \<and>
   ts_symbol_metadata ! 287 = symbol_metadata True True False \<and>
   ts_symbol_metadata ! 288 = symbol_metadata True True False \<and>
   ts_symbol_metadata ! 289 = symbol_metadata False True False \<and>
   ts_symbol_metadata ! 290 = symbol_metadata True True False \<and>
   ts_symbol_metadata ! 291 = symbol_metadata False True False \<and>
   ts_symbol_metadata ! 292 = symbol_metadata True True False \<and>
   ts_symbol_metadata ! 293 = symbol_metadata True True False \<and>
   ts_symbol_metadata ! 294 = symbol_metadata True True False"
proof -
  have "list_all (\<lambda>(i, x). ts_symbol_metadata ! i = x) symbol_metadata_7"
    using symbol_row_nth(3) by (fastforce simp: list_all_iff symbol_metadata_rows_def)
  then show ?thesis unfolding symbol_metadata_7_def by (simp add: symbol_number_defs)
qed

lemma metadata_facts_8:
  "ts_symbol_metadata ! 295 = symbol_metadata True True False \<and>
   ts_symbol_metadata ! 296 = symbol_metadata True True False \<and>
   ts_symbol_metadata ! 297 = symbol_metadata True True False \<and>
   ts_symbol_metadata ! 298 = symbol_metadata True True False \<and>
   ts_symbol_metadata ! 299 = symbol_metadata False True False \<and>
   ts_symbol_metadata ! 300 = symbol_metadata False True False \<and>
   ts_symbol_metadata ! 301 = symbol_metadata True True False \<and>
   ts_symbol_metadata ! 302 = symbol_metadata True True False \<and>
   ts_symbol_metadata ! 303 = symbol_metadata True True False \<and>
   ts_symbol_metadata ! 304 = symbol_metadata True True False \<and>
   ts_symbol_metadata ! 305 = symbol_metadata False False False \<and>
   ts_symbol_metadata ! 306 = symbol_metadata False False False \<and>
   ts_symbol_metadata ! 307 = symbol_metadata False False False \<and>
   ts_symbol_metadata ! 308 = symbol_metadata False False False \<and>
   ts_symbol_metadata ! 309 = symbol_metadata False False False \<and>
   ts_symbol_metadata ! 310 = symbol_metadata False False False \<and>
   ts_symbol_metadata ! 311 = symbol_metadata False False False \<and>
   ts_symbol_metadata ! 312 = symbol_metadata False False False \<and>
   ts_symbol_metadata ! 313 = symbol_metadata False False False \<and>
   ts_symbol_metadata ! 314 = symbol_metadata False False False \<and>
   ts_symbol_metadata ! 315 = symbol_metadata False False False \<and>
   ts_symbol_metadata ! 316 = symbol_metadata False False False \<and>
   ts_symbol_metadata ! 317 = symbol_metadata False False False \<and>
   ts_symbol_metadata ! 318 = symbol_metadata False False False \<and>
   ts_symbol_metadata ! 319 = symbol_metadata False False False \<and>
   ts_symbol_metadata ! 320 = symbol_metadata False False False \<and>
   ts_symbol_metadata ! 321 = symbol_metadata False False False \<and>
   ts_symbol_metadata ! 322 = symbol_metadata False False False \<and>
   ts_symbol_metadata ! 323 = symbol_metadata False False False \<and>
   ts_symbol_metadata ! 324 = symbol_metadata False False False \<and>
   ts_symbol_metadata ! 325 = symbol_metadata False False False \<and>
   ts_symbol_metadata ! 326 = symbol_metadata False False False \<and>
   ts_symbol_metadata ! 327 = symbol_metadata False False False \<and>
   ts_symbol_metadata ! 328 = symbol_metadata False False False \<and>
   ts_symbol_metadata ! 329 = symbol_metadata False False False \<and>
   ts_symbol_metadata ! 330 = symbol_metadata False False False \<and>
   ts_symbol_metadata ! 331 = symbol_metadata False False False"
proof -
  have "list_all (\<lambda>(i, x). ts_symbol_metadata ! i = x) symbol_metadata_8"
    using symbol_row_nth(3) by (fastforce simp: list_all_iff symbol_metadata_rows_def)
  then show ?thesis unfolding symbol_metadata_8_def by (simp add: symbol_number_defs)
qed

lemma metadata_facts_9:
  "ts_symbol_metadata ! 332 = symbol_metadata False False False \<and>
   ts_symbol_metadata ! 333 = symbol_metadata False False False \<and>
   ts_symbol_metadata ! 334 = symbol_metadata False False False \<and>
   ts_symbol_metadata ! 335 = symbol_metadata False False False \<and>
   ts_symbol_metadata ! 336 = symbol_metadata False False False \<and>
   ts_symbol_metadata ! 337 = symbol_metadata False False False \<and>
   ts_symbol_metadata ! 338 = symbol_metadata False False False \<and>
   ts_symbol_metadata ! 339 = symbol_metadata False False False \<and>
   ts_symbol_metadata ! 340 = symbol_metadata False False False \<and>
   ts_symbol_metadata ! 341 = symbol_metadata False False False \<and>
   ts_symbol_metadata ! 342 = symbol_metadata False False False \<and>
   ts_symbol_metadata ! 343 = symbol_metadata False False False \<and>
   ts_symbol_metadata ! 344 = symbol_metadata False False False \<and>
   ts_symbol_metadata ! 345 = symbol_metadata False False False \<and>
   ts_symbol_metadata ! 346 = symbol_metadata False False False \<and>
   ts_symbol_metadata ! 347 = symbol_metadata False False False \<and>
   ts_symbol_metadata ! 348 = symbol_metadata True True False \<and>
   ts_symbol_metadata ! 349 = symbol_metadata True True False"
proof -
  have "list_all (\<lambda>(i, x). ts_symbol_metadata ! i = x) symbol_metadata_9"
    using symbol_row_nth(3) by (fastforce simp: list_all_iff symbol_metadata_rows_def)
  then show ?thesis unfolding symbol_metadata_9_def by (simp add: symbol_number_defs)
qed

lemmas symbol_facts =
  name_facts_0 name_facts_1 name_facts_2 public_facts_0 public_facts_1 public_facts_2
  metadata_facts_0 metadata_facts_1 metadata_facts_2 metadata_facts_3 metadata_facts_4
  metadata_facts_5 metadata_facts_6 metadata_facts_7 metadata_facts_8 metadata_facts_9

section \<open>Symbols in the order of their keys\<close>

text \<open>The keys as lists of integers, which are ordered.\<close>

definition key_code :: "nat \<Rightarrow> int list" where
  "key_code s = (if visible (ts_symbol_metadata ! s) then 1 else 0) #
     (if named (ts_symbol_metadata ! s) then 1 else 0) # map of_char (ts_symbol_names ! s)"

definition symbol_order :: "nat list" where
  "symbol_order = [
    342, 341, 182, 308, 313, 330, 331, 306, 324, 310, 335, 320, 314, 333, 344, 326, 329, 339,
    327, 343, 347, 117, 318, 336, 321, 311, 307, 337, 312, 338, 305, 325, 309, 319, 346, 345,
    340, 334, 322, 315, 316, 323, 332, 328, 317, 291, 289, 129, 241, 299, 146, 128, 271, 219,
    134, 156, 127, 300, 224, 225, 230, 258, 213, 140, 139, 131, 199, 0, 242, 153, 226, 227, 243,
    94, 86, 105, 87, 109, 7, 8, 11, 53, 106, 101, 70, 99, 9, 68, 100, 44, 4, 85, 63, 104, 102,
    25, 17, 2, 91, 88, 108, 92, 97, 58, 93, 96, 95, 13, 107, 67, 103, 42, 116, 43, 81, 110, 52,
    16, 24, 6, 26, 114, 51, 83, 10, 15, 32, 121, 72, 22, 48, 31, 59, 14, 23, 40, 77, 19, 28, 29,
    49, 37, 66, 56, 38, 41, 33, 5, 54, 27, 3, 34, 65, 73, 90, 251, 98, 30, 61, 55, 82, 250, 84,
    62, 74, 21, 12, 20, 47, 75, 71, 18, 80, 60, 50, 64, 36, 57, 78, 76, 79, 35, 39, 112, 45, 69,
    111, 46, 89, 183, 147, 231, 197, 204, 214, 240, 348, 151, 255, 260, 256, 302, 248, 170, 209,
    247, 161, 263, 265, 185, 171, 212, 150, 196, 222, 125, 252, 223, 152, 244, 165, 295, 294,
    272, 162, 206, 208, 236, 158, 218, 281, 286, 190, 239, 211, 167, 113, 168, 132, 115, 175,
    207, 193, 210, 163, 123, 176, 120, 292, 172, 349, 301, 180, 266, 144, 288, 268, 191, 1, 293,
    166, 145, 142, 141, 200, 119, 136, 298, 270, 274, 275, 220, 304, 253, 254, 188, 126, 278,
    285, 216, 229, 189, 238, 169, 273, 276, 137, 164, 277, 138, 155, 124, 192, 246, 282, 205,
    195, 187, 290, 203, 160, 257, 303, 149, 159, 143, 181, 157, 234, 279, 287, 262, 221, 267,
    296, 297, 133, 130, 283, 284, 261, 201, 202, 245, 122, 174, 280, 154, 217, 228, 135, 184,
    264, 194, 118, 198, 237, 235, 249, 232, 215, 269, 233, 173, 148, 186, 178, 179, 177, 259]"

fun neighbours_agree :: "nat list \<Rightarrow> bool" where
  "neighbours_agree (s # t # ss) \<longleftrightarrow>
     (key_code s < key_code t \<or> key_code s = key_code t \<and> ts_symbol_map ! s = ts_symbol_map ! t) \<and>
     neighbours_agree (t # ss)"
| "neighbours_agree ss \<longleftrightarrow> True"

lemma symbol_order_agrees: "neighbours_agree symbol_order"
  unfolding symbol_order_def by (simp add: key_code_def symbol_facts symbol_metadata_def del: One_nat_def)

lemma symbol_order_all: "distinct symbol_order" "length symbol_order = 350" "list_all (\<lambda>s. s < 350) symbol_order"
  unfolding symbol_order_def by simp_all

lemma public_symbol_keys:
  "list_all (\<lambda>s. ts_symbol_map ! s < 350 \<and> (ts_symbol_map ! s = s \<or>
     symbol_key (ts_symbol_map ! s) = symbol_key s \<and> ts_symbol_map ! (ts_symbol_map ! s) = ts_symbol_map ! s))
   symbol_order"
  unfolding symbol_order_def by (simp add: symbol_facts symbol_key_def symbol_metadata_def del: One_nat_def)

end
