(* ===== verification/Mojo_Parse_Properties.thy ===== *)
theory Mojo_Parse_Properties
  imports Mojo_Properties Mojo_External Mojo_Lex_Mode_Proofs Mojo_Lex_Properties Mojo_Primary_Proofs
    Mojo_Symbol_Facts
begin

text \<open>
  The lexers as the parser calls them: in a parse state, \<open>ts_lex_modes\<close> gives the state in which
  \<open>ts_lex\<close> starts and the row of \<open>ts_external_scanner_states\<close> with which the external scanner is
  called. The properties compose the tables with the scanner and with the names of the symbols.
\<close>

section \<open>The valid symbols of a parse state\<close>

definition row_symbols :: "bool list \<Rightarrow> TokenType \<Rightarrow> bool" where
  "row_symbols row tok = row ! token_number tok"

definition external_symbols :: "nat \<Rightarrow> TokenType \<Rightarrow> bool" where
  "external_symbols p =
     row_symbols (ts_external_scanner_states ! external_lex_state (ts_lex_modes ! p))"

definition all_tokens :: "TokenType list" where
  "all_tokens = [NEWLINE, INDENT, DEDENT, STRING_START, STRING_CONTENT, ESCAPE_INTERPOLATION,
     STRING_END, COMMENT, CLOSE_PAREN, CLOSE_BRACKET, CLOSE_BRACE, EXCEPT,
     MLIR_BACKTICK, MLIR_IDENT, MLIR_NUMBER, MLIR_PUNCTUATION]"

lemma all_tokens: "tok \<in> set all_tokens"
  by (cases tok) (simp_all add: all_tokens_def)

lemma token_number_bound: "token_number tok < EXTERNAL_TOKEN_COUNT"
  by (cases tok) (simp_all add: EXTERNAL_TOKEN_COUNT_def)

lemma length_external_states: "length ts_external_scanner_states = 23"
  by (simp add: ts_external_scanner_states_def)

text \<open>The external lexical states in which the scanner may report a \<open>DEDENT\<close> that is not valid.\<close>

definition dedent_rows :: "nat list" where
  "dedent_rows = [2, 9, 13, 16, 17, 18, 19, 22]"

definition row_ok_at :: "nat \<Rightarrow> bool list \<Rightarrow> bool" where
  "row_ok_at r row \<longleftrightarrow> r = 0 \<or>
     ((error_recovery_mode (row_symbols row) \<longleftrightarrow> r = 1) \<and>
      (\<forall>tok\<in>set all_tokens. token_allowed (row_symbols row) tok \<longrightarrow>
         row_symbols row tok \<or> tok = DEDENT \<and> r \<in> set dedent_rows) \<and>
      (within_brackets (row_symbols row) \<longleftrightarrow>
         (\<exists>k\<in>set [0..<EXTERNAL_TOKEN_COUNT]. row ! k \<and>
            ts_external_scanner_symbol_map ! k \<in> set [anon_sym_RPAREN, anon_sym_RBRACK, anon_sym_RBRACE])))"

lemma external_rows_ok: "\<forall>(r, row)\<in>set (enumerate 0 ts_external_scanner_states). row_ok_at r row"
  by code_simp

lemma symbol_map_tokens: "\<forall>n\<in>set ts_external_scanner_symbol_map. n < TOKEN_COUNT"
  by code_simp

lemma external_row:
  assumes "r < 23"
  shows "row_ok_at r (ts_external_scanner_states ! r)"
  using external_rows_ok assms by (force simp: enumerate_eq_zip length_external_states set_zip)

lemma external_lex_state_bounds:
  assumes "p < STATE_COUNT"
  shows "external_lex_state (ts_lex_modes ! p) < 23 \<and> 0 < external_lex_state (ts_lex_modes ! p) \<and>
    (external_lex_state (ts_lex_modes ! p) = 1 \<longleftrightarrow> p = 0)"
  using assms ts_lex_modes_hd ts_lex_modes_nth [of p]
  by (cases "p = 0") (auto simp: lexer_mode_def mode_ok_def)

lemma external_symbols_row:
  assumes "p < STATE_COUNT"
  shows "(error_recovery_mode (external_symbols p) \<longleftrightarrow> p = 0) \<and>
    (\<forall>tok. token_allowed (external_symbols p) tok \<longrightarrow> external_symbols p tok \<or>
       tok = DEDENT \<and> external_lex_state (ts_lex_modes ! p) \<in> set dedent_rows) \<and>
    (within_brackets (external_symbols p) \<longleftrightarrow>
       (\<exists>k<EXTERNAL_TOKEN_COUNT.
          ts_external_scanner_states ! external_lex_state (ts_lex_modes ! p) ! k \<and>
          ts_external_scanner_symbol_map ! k \<in> {anon_sym_RPAREN, anon_sym_RBRACK, anon_sym_RBRACE}))"
  using external_row [of "external_lex_state (ts_lex_modes ! p)"] external_lex_state_bounds [OF assms]
    all_tokens unfolding row_ok_at_def external_symbols_def
  by (auto simp: Bex_def)

lemma symbol_map_token: "ts_external_scanner_symbol_map ! token_number tok < TOKEN_COUNT"
  using symbol_map_tokens token_number_bound [of tok]
  by (simp add: ts_external_scanner_symbol_map_def)

lemma external_row_lengths:
  "list_all (\<lambda>row. length row = EXTERNAL_TOKEN_COUNT) ts_external_scanner_states"
  by code_simp

section \<open>Reserved words\<close>

definition reservable :: "nat \<Rightarrow> bool" where
  "reservable w \<longleftrightarrow> w \<in> {0, anon_sym_except} \<union> snd ` set keyword_list"

lemma reservable_keywords: "list_all (\<lambda>(w, s). reservable s) keyword_list"
  by (force simp: list_all_iff reservable_def)

lemma reservable_except: "reservable anon_sym_except"
  by (simp add: reservable_def)

lemmas reservable_symbols = reservable_except
  reservable_keywords [unfolded keyword_list_def list.pred_inject prod.case]

lemma reserved_rows_ok: "list_all (\<lambda>(i, ws). list_all reservable ws) reserved_word_rows"
  unfolding reserved_word_rows_def
    reserved_words_0_def reserved_words_1_def reserved_words_2_def reserved_words_3_def reserved_words_4_def reserved_words_5_def reserved_words_6_def reserved_words_7_def
  by (simp add: reservable_symbols)

lemma reserved_row_ok:
  assumes "list_all reservable ws"
  shows "list_all reservable (reserved_row ws)"
proof -
  have "reservable (reserved_row ws ! k)" if "k < MAX_RESERVED_WORD_SET_SIZE" for k
    using that
  proof (cases rule: designated_cases [where z = 0 and ds = "enumerate 0 ws"])
    case 1
    then show ?thesis by (simp add: reserved_row_def reservable_def)
  next
    case 2
    then have "reserved_row ws ! k \<in> set ws"
      by (auto simp: reserved_row_def enumerate_eq_zip dest: set_zip_rightD)
    with assms show ?thesis by (simp add: list_all_iff)
  qed
  then show ?thesis by (simp add: list_all_length reserved_row_def)
qed

lemma reserved_words_set:
  assumes "i < 34"
  shows "set (ts_reserved_words ! i) \<subseteq> {0, anon_sym_except} \<union> snd ` set keyword_list"
proof -
  have "list_all reservable (ts_reserved_words ! i)"
    using assms
  proof (cases rule: designated_cases [where z = "reserved_row []" and
        ds = "map (\<lambda>(i, ws). (i, reserved_row ws)) reserved_word_rows"])
    case 1
    then show ?thesis using reserved_row_ok [of "[]"] by (simp add: ts_reserved_words_def)
  next
    case 2
    then obtain ws where "(i, ws) \<in> set reserved_word_rows" "ts_reserved_words ! i = reserved_row ws"
      unfolding ts_reserved_words_def by auto
    with reserved_rows_ok reserved_row_ok show ?thesis by (fastforce simp: list_all_iff)
  qed
  then show ?thesis by (auto simp: list_all_iff reservable_def)
qed

section \<open>The spelling of tokens\<close>

text \<open>
  The cases of \<open>ts_lex\<close> from which a token with a fixed spelling can still be accepted, with the characters
  that lead to the case: every run that is in it has consumed them since the last white space. The other
  cases have no entry; they go on to cases without an entry only, and accept no such token.
\<close>

definition spelled_words :: "string option list" where
  "spelled_words = [
    Some '''', None, None, Some '''', Some '''', Some '''', Some '''', Some '''', Some '''',
    Some '''', Some '''', None, Some '''', Some '''', Some '''', Some '''', None, None,
    Some ''/'', Some ''<'', Some ''!'', Some ''!'', Some ''%'', Some ''&'', Some ''@'',
    Some ''^'', Some ''|'', Some ''**'', Some ''//'', Some ''<<'', Some ''>>'', Some ''>'', None,
    None, None, None, None, None, None, None, None, None, None, None, None, None, None, None,
    None, None, None, None, Some '''', Some '''', Some '''', None, Some '';'', Some ''.'',
    Some ''.'', Some ''('', Some '')'', Some '','', Some ''*'', Some ''*'', Some ''*'',
    Some ''*'', Some ''>>'', Some ''>>'', Some '':='', Some '':'', Some '':'', Some ''except'',
    Some ''except'', Some ''['', Some '']'', Some ''->'', Some ''{'', Some ''}'', Some ''**'',
    Some ''**'', Some ''='', Some ''='', Some ''//'', Some ''//'', Some ''except*'', Some ''@'',
    Some ''@'', Some ''-'', Some ''-'', Some ''-'', Some ''-'', Some ''|'', Some ''|'',
    Some ''+'', Some ''+'', Some ''^'', Some ''^'', Some ''/'', Some ''/'', Some ''%'',
    Some ''%'', Some ''&'', Some ''&'', Some ''<<'', Some ''<<'', Some ''~'', Some ''<'',
    Some ''<'', Some ''<='', Some ''=='', Some ''!='', Some ''>='', Some ''>'', Some ''>'',
    Some ''<>'', Some ''+='', Some ''-='', Some ''*='', Some ''/='', Some ''@='', Some ''//='',
    Some ''%='', Some ''**='', Some ''>>='', Some ''<<='', Some ''&='', Some ''^='', Some ''|='',
    None, None, None, None, Some [CHR 0x5C], None, None, None, None, None, None, None, None,
    None, None, None, None, None, None, None, None, Some ''ex'', Some ''ex'', Some ''exc'',
    Some ''exc'', Some ''exce'', Some ''exce'', Some ''excep'', Some ''excep'', Some ''e'',
    Some ''e'', None, None, None]"


definition spelled :: "nat \<Rightarrow> string option" where
  "spelled s = (if s < 162 then spelled_words ! s else None)"

text \<open>A symbol that stands for its spelling: visible, but not named.\<close>

definition anonymous :: "nat \<Rightarrow> bool" where
  "anonymous a \<longleftrightarrow> visible (ts_symbol_metadata ! a) \<and> \<not> named (ts_symbol_metadata ! a)"

text \<open>What a case may accept and where it may go, given the characters that lead to it.\<close>

fun accept_ok :: "string option \<Rightarrow> nat option \<Rightarrow> bool" where
  "accept_ok w None = True"
| "accept_ok w (Some a) = (anonymous a \<longrightarrow> w = Some (ts_symbol_names ! a))"

fun action_ok :: "string option \<Rightarrow> int \<Rightarrow> lex_action \<Rightarrow> bool" where
  "action_ok w c END_STATE = True"
| "action_ok None c (ADVANCE s) = (spelled s = None)"
| "action_ok None c (SKIP s) = (spelled s = None)"
| "action_ok (Some w) c (ADVANCE s) =
     (case spelled s of None \<Rightarrow> True | Some v \<Rightarrow> map of_char v = map of_char w @ [c])"
| "action_ok (Some w) c (SKIP s) = (w = [] \<and> lexer_blank c \<and> spelled s = Some [])"

lemma action_ok_if:
  "action_ok w c (if b then x else y) \<longleftrightarrow> (b \<longrightarrow> action_ok w c x) \<and> (\<not> b \<longrightarrow> action_ok w c y)"
  by simp

definition case_ok :: "string option \<Rightarrow> lex_case \<Rightarrow> bool" where
  "case_ok w body \<longleftrightarrow> accept_ok w (fst (body True 0)) \<and>
     (\<forall>c. accept_ok w (fst (body False c)) \<and> action_ok w c (snd (body False c)))"

lemma ADVANCE_MAP_cases:
  "ADVANCE_MAP [] c act = act"
  "ADVANCE_MAP ((k, s) # es) c act = (if c = int k then ADVANCE s else ADVANCE_MAP es c act)"
  by (auto simp: ADVANCE_MAP_def)

lemma blank_chars:
  "lexer_blank 13" "(9 \<le> c \<and> c \<le> 12) \<or> c = 32 \<or> c = 0x200B \<or> c = 0x2060 \<or> c = 0xFEFF \<Longrightarrow> lexer_blank c"
  by (auto simp: lexer_blank_def)

lemmas action_ok_simps = action_ok.simps action_ok_if ADVANCE_MAP_cases blank_chars


lemmas anonymous_simps = anonymous_def symbol_number_defs symbol_facts symbol_metadata_def

lemma spelled_ok: "list_all2 case_ok spelled_words ts_lex_table"
  supply case_ok_def [simp] ts_lex_state_defs [simp] action_ok_simps [simp] spelled_def [simp]
    anonymous_simps [simp] One_nat_def [simp del]
  unfolding spelled_words_def ts_lex_table_def list_all2_Cons list_all2_Nil
  by (intro conjI TrueI; simp add: spelled_words_def)

lemma spelled_case:
  assumes "ts_lex_switch s = Some body"
  shows "s < 162" and "case_ok (spelled s) body" and "snd (body True 0) \<in> {END_STATE, ADVANCE 55, ADVANCE 161}"
proof -
  show s: "s < 162" using assms by (auto simp: ts_lex_switch_def length_ts_lex_table split: if_splits)
  have body: "body = ts_lex_table ! s" using assms by (auto simp: ts_lex_switch_def split: if_splits)
  show "case_ok (spelled s) body"
    using list_all2_nthD2 [OF spelled_ok, of s] s by (simp add: spelled_def body length_ts_lex_table)
  show "snd (body True 0) \<in> {END_STATE, ADVANCE 55, ADVANCE 161}"
    using ts_lex_eof_actions s by (simp add: body list_all_length length_ts_lex_table)
qed

lemma spelled_eof: "spelled 55 = None" "spelled 161 = None"
  by (simp_all add: spelled_def spelled_words_def)

text \<open>The token \<open>t'\<close> marks is the word \<open>w\<close>, after white space.\<close>

definition is_token :: "source_text \<Rightarrow> source_text \<Rightarrow> string \<Rightarrow> bool" where
  "is_token t t' w \<longleftrightarrow> (\<exists>bs rest. t_input t = bs @ map of_char w @ rest \<and> list_all lexer_blank bs \<and>
     t_end t' = Some (t_pos t + length bs + length w))"

text \<open>A run that started on \<open>t\<close> has skipped white space and consumed \<open>w\<close>.\<close>

definition consumed :: "source_text \<Rightarrow> source_text \<Rightarrow> string \<Rightarrow> bool" where
  "consumed t v w \<longleftrightarrow> (\<exists>bs. t_input t = bs @ map of_char w @ t_input v \<and> list_all lexer_blank bs \<and>
     t_pos v = t_pos t + length bs + length w)"

definition run_ok :: "source_text \<Rightarrow> bool \<Rightarrow> nat \<Rightarrow> source_text \<Rightarrow> bool" where
  "run_ok t r s v \<longleftrightarrow> (\<forall>w. spelled s = Some w \<longrightarrow> consumed t v w) \<and>
     (r \<and> anonymous (t_symbol v) \<longrightarrow> is_token t v (ts_symbol_names ! t_symbol v))"

lemma consumed_token: "consumed t v w \<Longrightarrow> is_token t (text_mark_end (text_set_result v a)) w"
  by (auto simp: consumed_def is_token_def)

lemma consumed_advance:
  assumes "consumed t v w" and "t_input v = c # cs" and "map of_char w' = map of_char w @ [c]"
  shows "consumed t (text_advance v False) w'"
proof -
  have len: "length w' = length w + 1" using arg_cong [OF assms(3), of length] by simp
  obtain bs where "t_input t = bs @ map of_char w @ t_input v" "list_all lexer_blank bs"
    "t_pos v = t_pos t + length bs + length w" using assms(1) by (auto simp: consumed_def)
  then show ?thesis using assms(2,3) len
    by (auto simp: consumed_def t_pos_advance intro!: exI [of _ bs])
qed

lemma consumed_skip:
  assumes "consumed t v []" and "t_input v = c # cs" and "lexer_blank c"
  shows "consumed t (text_advance v True) []"
proof -
  obtain bs where "t_input t = bs @ t_input v" "list_all lexer_blank bs" "t_pos v = t_pos t + length bs"
    using assms(1) by (auto simp: consumed_def)
  then show ?thesis using assms(2,3)
    by (auto simp: consumed_def t_pos_advance intro!: exI [of _ "bs @ [c]"])
qed

lemma is_token_advance [simp]: "is_token t (text_advance v sk) w \<longleftrightarrow> is_token t v w"
  by (simp add: is_token_def)

context ts_lexer
begin

lemma accept_run_ok:
  assumes "run_ok t r s (view l)" and "accept_ok (spelled s) a"
  shows "run_ok t (fst (ACCEPT_TOKEN L a (r, l))) s (view (snd (ACCEPT_TOKEN L a (r, l))))"
proof (cases a)
  case None
  then show ?thesis using assms(1) by (simp add: ACCEPT_TOKEN_def)
next
  case (Some k)
  have "consumed t (view (snd (ACCEPT_TOKEN L a (r, l)))) w" if "spelled s = Some w" for w
    using assms(1) that by (auto simp: run_ok_def consumed_def Some view_ACCEPT_TOKEN)
  moreover have "is_token t (view (snd (ACCEPT_TOKEN L a (r, l)))) (ts_symbol_names ! k)" if "anonymous k"
    using assms that consumed_token by (auto simp: run_ok_def Some view_ACCEPT_TOKEN)
  ultimately show ?thesis using Some by (simp add: run_ok_def view_ACCEPT_TOKEN)
qed

lemma advance_run_ok:
  assumes "run_ok t r s (view l)" and "t_input (view l) = c # cs"
  shows "action_ok (spelled s) c (ADVANCE s') \<Longrightarrow> run_ok t r s' (view (lx_advance L l False))"
    and "action_ok (spelled s) c (SKIP s') \<Longrightarrow> run_ok t r s' (view (lx_advance L l True))"
  using assms consumed_advance [OF _ assms(2)] consumed_skip [OF _ assms(2)]
  by (cases "spelled s"; cases "spelled s'"; auto simp: run_ok_def)+

lemma eof_run_ok: "run_ok t r s v \<Longrightarrow> s' \<in> {55, 161} \<Longrightarrow> run_ok t r s' (text_advance v sk)"
  by (auto simp: run_ok_def spelled_eof)

lemma lex_run_spelling:
  assumes "lex_run L ts_lex_switch r s l = Some (True, m)" and "run_ok t r s (view l)"
    and "anonymous (t_symbol (view m))"
  shows "is_token t (view m) (ts_symbol_names ! t_symbol (view m))"
proof -
  let ?P = "\<lambda>L' cs r s l y. L' = L \<longrightarrow> cs = ts_lex_switch \<longrightarrow> run_ok t r s (view l) \<longrightarrow> fst y \<longrightarrow>
    anonymous (t_symbol (view (snd y))) \<longrightarrow> is_token t (view (snd y)) (ts_symbol_names ! t_symbol (view (snd y)))"
  have "?P L ts_lex_switch r s l (True, m)"
  proof (rule lex_run.raw_induct [where P = ?P, OF _ assms(1)], intro impI)
    fix run L' cs r s l y
    assume IH: "\<And>L' cs r s l y. run L' cs r s l = Some y \<Longrightarrow> ?P L' cs r s l y"
      and L': "L' = L" and cs: "cs = ts_lex_switch" and ok: "run_ok t r s (view l)"
      and fst: "fst y" and anon: "anonymous (t_symbol (view (snd y)))"
      and step: "(case cs s of None \<Rightarrow> Some (False, l)
        | Some body \<Rightarrow> (let step = body (lx_eof L' l) (lx_lookahead L' l); rl = ACCEPT_TOKEN L' (fst step) (r, l)
           in case snd step of ADVANCE s \<Rightarrow> run L' cs (fst rl) s (lx_advance L' (snd rl) False)
              | SKIP s \<Rightarrow> run L' cs (fst rl) s (lx_advance L' (snd rl) True)
              | END_STATE \<Rightarrow> Some rl)) = Some y"
    obtain body where body: "ts_lex_switch s = Some body"
      using step fst cs by (auto split: option.splits)
    note case_ok = spelled_case(2) [OF body, unfolded case_ok_def] and eof = spelled_case(3) [OF body]
    let ?c = "text_lookahead (view l)" and ?e = "text_eof (view l)"
    obtain a act where b: "body ?e ?c = (a, act)" by fastforce
    define rl where "rl = ACCEPT_TOKEN L a (r, l)"
    have inp: "t_input (view (snd rl)) = t_input (view l)" by (simp add: rl_def t_input_ACCEPT_TOKEN)
    have e: "?e \<longleftrightarrow> t_input (view l) = []" "?e \<Longrightarrow> ?c = 0" by (simp_all add: text_eof_def text_lookahead_def)
    have "accept_ok (spelled s) a"
      using case_ok b e(2) by (cases ?e) (auto dest: spec [of _ ?c])
    from accept_run_ok [OF ok this] have acc: "run_ok t (fst rl) s (view (snd rl))" by (simp add: rl_def)
    have step': "(case act of ADVANCE s' \<Rightarrow> run L cs (fst rl) s' (lx_advance L (snd rl) False)
        | SKIP s' \<Rightarrow> run L cs (fst rl) s' (lx_advance L (snd rl) True) | END_STATE \<Rightarrow> Some rl) = Some y"
      using step by (cases act) (simp_all add: L' cs body b rl_def Let_def)
    have go: "is_token t (view (snd y)) (ts_symbol_names ! t_symbol (view (snd y)))"
      if "run L cs (fst rl) s' l' = Some y" "run_ok t (fst rl) s' (view l')" for s' l'
      using IH [OF that(1)] that(2) cs fst anon by simp
    show "is_token t (view (snd y)) (ts_symbol_names ! t_symbol (view (snd y)))"
    proof (cases ?e)
      case True
      then have "act \<in> {END_STATE, ADVANCE 55, ADVANCE 161}" using eof b e(2) by simp
      then consider "act = END_STATE" | s' where "act = ADVANCE s'" "s' \<in> {55, 161}" by auto
      then show ?thesis
      proof cases
        case 1
        with step' acc fst anon show ?thesis by (auto simp: run_ok_def)
      next
        case 2
        from step' 2(1) have "run L cs (fst rl) s' (lx_advance L (snd rl) False) = Some y" by simp
        from go [OF this] eof_run_ok [OF acc 2(2)] show ?thesis by simp
      qed
    next
      case False
      then obtain cs' where in1: "t_input (view (snd rl)) = ?c # cs'"
        using inp e(1) by (cases "t_input (view l)") (auto simp: text_lookahead_def)
      have act: "action_ok (spelled s) ?c act" using case_ok b False by (metis snd_conv)
      show ?thesis
      proof (cases act)
        case (ADVANCE s')
        with advance_run_ok(1) [OF acc in1] act step' go show ?thesis by auto
      next
        case (SKIP s')
        with advance_run_ok(2) [OF acc in1] act step' go show ?thesis by auto
      next
        case END_STATE
        with step' acc fst anon show ?thesis by (auto simp: run_ok_def)
      qed
    qed
  qed
  with assms(2,3) show ?thesis by simp
qed

end

text \<open>In a case where no character has been consumed, so in every case where the parser starts \<open>ts_lex\<close>.\<close>

lemma ts_lex_spelling:
  assumes "ts_lexer L view" "spelled s = Some []" "ts_lex L l s = Some (True, m)" "anonymous (t_symbol (view m))"
  shows "is_token (view l) (view m) (ts_symbol_names ! t_symbol (view m))"
proof (rule ts_lexer.lex_run_spelling [OF assms(1)])
  show "lex_run L ts_lex_switch False s l = Some (True, m)"
    using assms(3) by (simp add: ts_lex_def lex_start_def)
  show "run_ok (view l) False s (view l)"
    using assms(2) by (simp add: run_ok_def consumed_def)
qed (rule assms(4))

text \<open>The words of the keyword lexer are the names of their symbols, but for three constants.\<close>

definition constant_words :: "(string \<times> nat) list" where
  "constant_words = [(''True'', sym_true), (''False'', sym_false), (''None'', sym_none)]"

lemma keyword_names:
  "\<forall>(w, t)\<in>set keyword_list. ts_symbol_names ! t = w \<or> (w, t) \<in> set constant_words"
  unfolding keyword_list_def constant_words_def
  by (simp add: symbol_number_defs symbol_facts)

lemma keyword_spelling:
  assumes "ts_lexer L view" "ts_lex_keywords L l 0 = Some (True, l')"
  shows "\<exists>w. is_token (view l) (view l') w \<and>
    (ts_symbol_names ! t_symbol (view l') = w \<or> (w, t_symbol (view l')) \<in> set constant_words)"
proof -
  let ?i = "t_input (view l)"
  let ?ws = "takeWhile lexer_blank ?i" and ?cs = "dropWhile lexer_blank ?i"
  have "?i = ?ws @ ?cs" by simp
  moreover have ws: "\<forall>c \<in> set ?ws. lexer_blank c" by (auto dest: set_takeWhileD)
  moreover have "?cs = [] \<or> \<not> lexer_blank (hd ?cs)" using hd_dropWhile by metis
  ultimately obtain v
    where v: "longest_word keyword_words_list ?cs v (t_symbol (view l'))"
      "t_end (view l') = Some (t_pos (view l) + length ?ws + length v)"
    using keyword_lex_run [OF assms(1), of l ?ws ?cs] assms(2) by (auto split: if_splits)
  then obtain w where w: "(w, t_symbol (view l')) \<in> set keyword_list" "v = map of_char w" "prefix v ?cs"
    by (auto simp: longest_word_def keyword_words_list_def char_words_def)
  then obtain rest where "?cs = map of_char w @ rest" by (auto simp: prefix_def)
  then have "?i = ?ws @ map of_char w @ rest" by (metis takeWhile_dropWhile_id)
  with ws v(2) w(2) have "is_token (view l) (view l') w"
    unfolding is_token_def by (intro exI [of _ ?ws] exI [of _ rest]) (simp add: list_all_iff)
  with w(1) keyword_names show ?thesis by fastforce
qed

section \<open>The lexical state of a parse state\<close>

lemma parse_state_mode:
  assumes "s < STATE_COUNT"
  shows "lex_state (ts_lex_modes ! s) \<in> lexical_starts" "external_lex_state (ts_lex_modes ! s) < 23"
    "reserved_word_set_id (ts_lex_modes ! s) < 34"
  using assms ts_lex_modes_hd ts_lex_modes_nth [of s]
  by (cases "s = 0"; auto simp: lexer_mode_def mode_ok_def lexical_starts_def)+

lemma starts_spelled: "s \<in> lexical_starts \<Longrightarrow> spelled s = Some []"
  by (auto simp: lexical_starts_def spelled_def spelled_words_def)

text \<open>An identifier may start in the lexical state of every parse state, except in state 3.\<close>

lemma identifier_start_modes:
  "p < STATE_COUNT \<Longrightarrow> lex_state (ts_lex_modes ! p) \<noteq> 3 \<Longrightarrow>
     lex_state (ts_lex_modes ! p) \<in> set (word_start_states @ plain_word_states @ star_word_states)"
  using parse_state_mode(1) [of p]
  by (auto simp: lexical_starts_def word_start_states_def plain_word_states_def star_word_states_def)

section \<open>Properties\<close>

text \<open>C34: The tables that the parser reads for a parse state fit together: \<open>ts_lex\<close> has a case for the
  lexical state; the row of valid external tokens exists and has one element for every token; the set
  of reserved words exists, and its words are symbols that the keyword lexer reports (or \<open>except\<close>, which
  \<open>ts_lex\<close> recognises itself), padded with 0; and the primary state is at most the state and its own
  primary state.\<close>

theorem parse_state_tables:
  assumes "s < STATE_COUNT"
  shows "s < length ts_lex_modes \<and> s < length ts_primary_state_ids \<and>
    (\<exists>body. ts_lex_switch (lex_state (ts_lex_modes ! s)) = Some body) \<and>
    external_lex_state (ts_lex_modes ! s) < length ts_external_scanner_states \<and>
    length (ts_external_scanner_states ! external_lex_state (ts_lex_modes ! s)) = EXTERNAL_TOKEN_COUNT \<and>
    reserved_word_set_id (ts_lex_modes ! s) < length ts_reserved_words \<and>
    set (ts_reserved_words ! reserved_word_set_id (ts_lex_modes ! s)) \<subseteq>
      {0, anon_sym_except} \<union> snd ` set keyword_list \<and>
    ts_primary_state_ids ! s \<le> s \<and>
    ts_primary_state_ids ! (ts_primary_state_ids ! s) = ts_primary_state_ids ! s"
proof -
  note mode = parse_state_mode [OF assms]
  from mode(1) have "lex_state (ts_lex_modes ! s) < 162" by (auto simp: lexical_starts_def)
  then have "\<exists>body. ts_lex_switch (lex_state (ts_lex_modes ! s)) = Some body"
    by (simp add: ts_lex_switch_def length_ts_lex_table)
  moreover have "length (ts_external_scanner_states ! external_lex_state (ts_lex_modes ! s)) =
      EXTERNAL_TOKEN_COUNT"
    using external_row_lengths mode(2) length_external_states by (simp add: list_all_length)
  ultimately show ?thesis
    using assms mode length_ts_lex_modes length_primary length_external_states primary_state [OF assms]
      reserved_words_set [OF mode(3)]
    by (simp add: primary_fixed_def ts_reserved_words_def)
qed

theorem parse_state_tables_witness:
  "ts_primary_state_ids ! (ts_primary_state_ids ! 12757) = ts_primary_state_ids ! 12757 \<and>
   set (ts_reserved_words ! reserved_word_set_id (ts_lex_modes ! 12757)) \<subseteq>
     {0, anon_sym_except} \<union> snd ` set keyword_list"
  using parse_state_tables [of 12757] by (simp add: STATE_COUNT_def)

text \<open>C37: The tests of the scanner mean what they say, in every parse state: it treats a call as error
  recovery exactly when the parser is in its error state 0, and it sees itself within brackets
  exactly when the parser can use one of the three closing brackets. The latter holds although it
  counts the closing brackets in another order than the grammar (its \<open>CLOSE_PAREN\<close> is the number
  of \<^verbatim>\<open>]\<close> and its \<open>CLOSE_BRACKET\<close> that of \<^verbatim>\<open>)\<close>); it agrees with the grammar on every other token.\<close>

theorem scanner_tests_meaning:
  "map (\<lambda>tok. ts_external_scanner_symbol_map ! token_number tok)
     [NEWLINE, INDENT, DEDENT, STRING_START, STRING_CONTENT, ESCAPE_INTERPOLATION, STRING_END, COMMENT,
      CLOSE_PAREN, CLOSE_BRACKET, CLOSE_BRACE, EXCEPT,
      MLIR_BACKTICK, MLIR_IDENT, MLIR_NUMBER, MLIR_PUNCTUATION] =
   [sym__newline, sym__indent, sym__dedent, sym_string_start, sym__string_content,
      sym_escape_interpolation, sym_string_end, sym_comment,
      anon_sym_RBRACK, anon_sym_RPAREN, anon_sym_RBRACE, anon_sym_except,
      sym__mlir_backtick, sym__mlir_ident, sym__mlir_number, sym_mlir_punctuation] \<and>
   (\<forall>p<STATE_COUNT. (error_recovery_mode (external_symbols p) \<longleftrightarrow> p = 0) \<and>
      (within_brackets (external_symbols p) \<longleftrightarrow>
        (\<exists>k<EXTERNAL_TOKEN_COUNT.
           ts_external_scanner_states ! external_lex_state (ts_lex_modes ! p) ! k \<and>
           ts_external_scanner_symbol_map ! k \<in> {anon_sym_RPAREN, anon_sym_RBRACK, anon_sym_RBRACE})))"
  (is "?numbers \<and> ?tests")
proof
  show ?numbers by code_simp
  show ?tests using external_symbols_row by blast
qed

theorem scanner_tests_meaning_witness:
  "error_recovery_mode (external_symbols 0) \<and> \<not> error_recovery_mode (external_symbols 12757)"
  using scanner_tests_meaning by (simp add: STATE_COUNT_def)

text \<open>C35: The lexers and the names of the symbols agree. Whatever parse state \<open>ts_lex\<close> is called for, a token
  whose symbol is anonymous (visible but not named: keywords, operators and brackets) consists, after the
  white space it skips, of exactly the characters that \<open>ts_symbol_names\<close> gives as the name of the symbol.
  So does every token of the keyword lexer, except that the words \<open>True\<close>, \<open>False\<close> and \<open>None\<close> are the symbols
  named \<open>true\<close>, \<open>false\<close> and \<open>none\<close>.\<close>

theorem token_spelling:
  assumes "ts_lexer L view"
  shows "(\<forall>p m. p < STATE_COUNT \<and> ts_lex L l (lex_state (ts_lex_modes ! p)) = Some (True, m) \<and>
      anonymous (t_symbol (view m)) \<longrightarrow> is_token (view l) (view m) (ts_symbol_names ! t_symbol (view m))) \<and>
    (\<forall>m. ts_lex_keywords L l 0 = Some (True, m) \<longrightarrow> (\<exists>w. is_token (view l) (view m) w \<and>
      (ts_symbol_names ! t_symbol (view m) = w \<or> (w, t_symbol (view m)) \<in> set constant_words)))"
  using ts_lex_spelling [OF assms starts_spelled] parse_state_mode(1) keyword_spelling [OF assms] by blast

text \<open>The operator \<open>>>=\<close> in front of a digit, in the error state of the parser.\<close>

theorem token_spelling_witness:
  "\<exists>m. ts_lex text_ops (text_of [62, 62, 61, 49]) (lex_state (ts_lex_modes ! 0)) = Some (True, m) \<and>
     ts_symbol_names ! t_symbol m = ''>>='' \<and> is_token (text_of [62, 62, 61, 49]) m ''>>=''"
proof -
  have inp: "t_input (id (text_of [62, 62, 61, 49])) = 62 # [62, 61, 49]" by (simp add: text_of_def)
  have mode: "lex_state (ts_lex_modes ! 0) = 0" by (simp add: ts_lex_modes_hd lexer_mode_def)
  have "62 \<in> fst ` set (char_edges operator_first)" by (simp add: operator_first_def char_edges_def)
  from operator_lex_run [OF text_lexer.ts_lexer_axioms _ inp this, of 0] obtain m w t where
    m: "ts_lex text_ops (text_of [62, 62, 61, 49]) 0 = Some (True, m)" "t_symbol m = t" and
    w: "longest_word (char_words operator_list) [62, 62, 61, 49] w t" by auto
  have "(map of_char ''>>='', anon_sym_GT_GT_EQ) \<in> set (char_words operator_list)"
    by (simp add: char_words_def operator_list_def)
  with w have len: "3 \<le> length w" by (fastforce simp: longest_word_def)
  have "(w, t) \<in> set (char_words operator_list)" "prefix w [62, 62, 61, 49]" using w by (simp_all add: longest_word_def)
  then have "t = anon_sym_GT_GT_EQ"
    using len unfolding char_words_def operator_list_def by auto
  then have "ts_symbol_names ! t = ''>>=''" "anonymous t"
    by (simp_all add: anonymous_def symbol_number_defs symbol_facts symbol_metadata_def)
  then show ?thesis
    using conjunct1 [OF token_spelling [OF text_lexer.ts_lexer_axioms, of "text_of [62, 62, 61, 49]"],
        rule_format, of 0 m] m mode
    by (auto simp: STATE_COUNT_def)
qed

end
