(* ===== verification/Mojo_Actions.thy ===== *)
theory Mojo_Actions
  imports C_Arrays Mojo_Grammar Mojo_Lex_Modes
begin

text \<open>
  The actions of the parser (\<open>ts_parse_actions\<close> of \<^verbatim>\<open>grammars/tree-sitter-mojo/src/parser.c\<close>, written
  with the macros of \<^verbatim>\<open>tree_sitter/parser.h\<close>). The table is a sequence of groups: a header with the
  number of the actions, then the actions. Definitions only; the table is split into blocks of
  150 lines.
\<close>

section \<open>Actions\<close>

text \<open>The tagged union \<open>TSParseAction\<close>: a shift has the fields \<open>state\<close>, \<open>extra\<close> and \<open>repetition\<close>, a
  reduction \<open>symbol\<close>, \<open>child_count\<close>, \<open>dynamic_precedence\<close> and \<open>production_id\<close>.\<close>

datatype TSParseAction =
  Shift nat bool bool
| Reduce nat nat int nat
| Accept
| Recover

text \<open>An element of the table is the header of a group of actions, with their number, or one of the
  actions.\<close>

datatype TSParseActionEntry =
  Entry nat bool
| Action TSParseAction

definition ENTRY :: "nat \<Rightarrow> bool \<Rightarrow> TSParseActionEntry" where
  "ENTRY count reusable = Entry count reusable"

definition SHIFT :: "nat \<Rightarrow> TSParseActionEntry" where
  "SHIFT s = Action (Shift s False False)"

definition SHIFT_REPEAT :: "nat \<Rightarrow> TSParseActionEntry" where
  "SHIFT_REPEAT s = Action (Shift s False True)"

definition SHIFT_EXTRA :: TSParseActionEntry where
  "SHIFT_EXTRA = Action (Shift 0 True False)"

definition REDUCE :: "nat \<Rightarrow> nat \<Rightarrow> int \<Rightarrow> nat \<Rightarrow> TSParseActionEntry" where
  "REDUCE symbol_name children precedence prod_id =
     Action (Reduce symbol_name children precedence prod_id)"

definition RECOVER :: TSParseActionEntry where
  "RECOVER = Action Recover"

definition ACCEPT_INPUT :: TSParseActionEntry where
  "ACCEPT_INPUT = Action Accept"

section \<open>The table\<close>

definition parse_actions_0 :: "(nat \<times> TSParseActionEntry list) list" where "parse_actions_0 = [
    (0, [ENTRY 0 False]), (1, [ENTRY 1 False, RECOVER]), (3, [ENTRY 1 True, SHIFT_EXTRA]),
    (5, [ENTRY 1 False, SHIFT_EXTRA]), (7, [ENTRY 1 True, REDUCE sym_module 0 0 0]),
    (9, [ENTRY 1 False, SHIFT 6769]), (11, [ENTRY 1 False, SHIFT 9727]),
    (13, [ENTRY 1 False, SHIFT 9859]), (15, [ENTRY 1 True, SHIFT 3654]),
    (17, [ENTRY 1 True, SHIFT 6867]), (19, [ENTRY 1 False, SHIFT 1221]),
    (21, [ENTRY 1 False, SHIFT 4066]), (23, [ENTRY 1 False, SHIFT 4177]),
    (25, [ENTRY 1 False, SHIFT 4089]), (27, [ENTRY 1 False, SHIFT 3886]),
    (29, [ENTRY 1 False, SHIFT 4035]), (31, [ENTRY 1 False, SHIFT 3871]),
    (33, [ENTRY 1 False, SHIFT 12319]), (35, [ENTRY 1 False, SHIFT 12323]),
    (37, [ENTRY 1 False, SHIFT 12393]), (39, [ENTRY 1 False, SHIFT 11863]),
    (41, [ENTRY 1 False, SHIFT 12649]), (43, [ENTRY 1 False, SHIFT 4171]),
    (45, [ENTRY 1 False, SHIFT 1846]), (47, [ENTRY 1 False, SHIFT 6723]),
    (49, [ENTRY 1 False, SHIFT 3949]), (51, [ENTRY 1 False, SHIFT 4118]),
    (53, [ENTRY 1 False, SHIFT 12511]), (55, [ENTRY 1 False, SHIFT 3960]),
    (57, [ENTRY 1 False, SHIFT 12315]), (59, [ENTRY 1 True, SHIFT 3638]),
    (61, [ENTRY 1 True, SHIFT 3629]), (63, [ENTRY 1 False, SHIFT 12484]),
    (65, [ENTRY 1 False, SHIFT 12471]), (67, [ENTRY 1 False, SHIFT 6733]),
    (69, [ENTRY 1 False, SHIFT 1218]), (71, [ENTRY 1 False, SHIFT 12524]),
    (73, [ENTRY 1 False, SHIFT 6770]), (75, [ENTRY 1 False, SHIFT 12482]),
    (77, [ENTRY 1 True, SHIFT 4178]), (79, [ENTRY 1 True, SHIFT 6830]),
    (81, [ENTRY 1 False, SHIFT 6744]), (83, [ENTRY 1 False, SHIFT 4275]),
    (85, [ENTRY 1 False, SHIFT 7836]), (87, [ENTRY 1 False, SHIFT 3862]),
    (89, [ENTRY 1 True, SHIFT 7017]), (91, [ENTRY 1 False, SHIFT 12355]),
    (93, [ENTRY 1 False, SHIFT 7017]), (95, [ENTRY 1 False, SHIFT 1862]),
    (97, [ENTRY 1 True, SHIFT 9606]), (99, [ENTRY 1 False, SHIFT 4263]),
    (101, [ENTRY 1 False, SHIFT 11994]), (103, [ENTRY 1 False, SHIFT 12683]),
    (105, [ENTRY 1 False, SHIFT 4172]), (107, [ENTRY 1 False, SHIFT 1845]),
    (109, [ENTRY 1 False, SHIFT 6727]), (111, [ENTRY 1 False, SHIFT 3994]),
    (113, [ENTRY 1 False, SHIFT 4173]), (115, [ENTRY 1 False, SHIFT 12521]),
    (117, [ENTRY 1 False, SHIFT 3974]), (119, [ENTRY 1 False, SHIFT 12433]),
    (121, [ENTRY 1 False, SHIFT 12530]), (123, [ENTRY 1 False, SHIFT 12686]),
    (125, [ENTRY 1 True, SHIFT 4004]), (127, [ENTRY 1 True, SHIFT 11836]),
    (129, [ENTRY 1 True, SHIFT 4031]), (131, [ENTRY 1 True, SHIFT 4073]),
    (133, [ENTRY 1 True, SHIFT 12289]), (135, [ENTRY 1 True, SHIFT 4190]),
    (137, [ENTRY 1 True, SHIFT 4229]), (139, [ENTRY 1 True, REDUCE sym_module 1 0 0]),
    (141, [ENTRY 1 True, SHIFT 12160]), (143, [ENTRY 1 True, REDUCE aux_sym_module_repeat1 2 0 0]),
    (145, [ENTRY 2 False, REDUCE aux_sym_module_repeat1 2 0 0, SHIFT_REPEAT 6769]),
    (148, [ENTRY 2 False, REDUCE aux_sym_module_repeat1 2 0 0, SHIFT_REPEAT 9727]),
    (151, [ENTRY 2 False, REDUCE aux_sym_module_repeat1 2 0 0, SHIFT_REPEAT 9859]),
    (154, [ENTRY 2 True, REDUCE aux_sym_module_repeat1 2 0 0, SHIFT_REPEAT 3654]),
    (157, [ENTRY 2 True, REDUCE aux_sym_module_repeat1 2 0 0, SHIFT_REPEAT 6867]),
    (160, [ENTRY 2 False, REDUCE aux_sym_module_repeat1 2 0 0, SHIFT_REPEAT 1221]),
    (163, [ENTRY 2 False, REDUCE aux_sym_module_repeat1 2 0 0, SHIFT_REPEAT 4066]),
    (166, [ENTRY 2 False, REDUCE aux_sym_module_repeat1 2 0 0, SHIFT_REPEAT 4177]),
    (169, [ENTRY 2 False, REDUCE aux_sym_module_repeat1 2 0 0, SHIFT_REPEAT 4089]),
    (172, [ENTRY 2 False, REDUCE aux_sym_module_repeat1 2 0 0, SHIFT_REPEAT 3886]),
    (175, [ENTRY 2 False, REDUCE aux_sym_module_repeat1 2 0 0, SHIFT_REPEAT 4035]),
    (178, [ENTRY 2 False, REDUCE aux_sym_module_repeat1 2 0 0, SHIFT_REPEAT 3871]),
    (181, [ENTRY 2 False, REDUCE aux_sym_module_repeat1 2 0 0, SHIFT_REPEAT 12319]),
    (184, [ENTRY 2 False, REDUCE aux_sym_module_repeat1 2 0 0, SHIFT_REPEAT 12323]),
    (187, [ENTRY 2 False, REDUCE aux_sym_module_repeat1 2 0 0, SHIFT_REPEAT 12393]),
    (190, [ENTRY 2 False, REDUCE aux_sym_module_repeat1 2 0 0, SHIFT_REPEAT 11863]),
    (193, [ENTRY 2 False, REDUCE aux_sym_module_repeat1 2 0 0, SHIFT_REPEAT 12649]),
    (196, [ENTRY 2 False, REDUCE aux_sym_module_repeat1 2 0 0, SHIFT_REPEAT 4171]),
    (199, [ENTRY 2 False, REDUCE aux_sym_module_repeat1 2 0 0, SHIFT_REPEAT 1846]),
    (202, [ENTRY 2 False, REDUCE aux_sym_module_repeat1 2 0 0, SHIFT_REPEAT 6723]),
    (205, [ENTRY 2 False, REDUCE aux_sym_module_repeat1 2 0 0, SHIFT_REPEAT 3949]),
    (208, [ENTRY 2 False, REDUCE aux_sym_module_repeat1 2 0 0, SHIFT_REPEAT 4118]),
    (211, [ENTRY 2 False, REDUCE aux_sym_module_repeat1 2 0 0, SHIFT_REPEAT 12511]),
    (214, [ENTRY 2 False, REDUCE aux_sym_module_repeat1 2 0 0, SHIFT_REPEAT 3960]),
    (217, [ENTRY 2 False, REDUCE aux_sym_module_repeat1 2 0 0, SHIFT_REPEAT 12315]),
    (220, [ENTRY 2 True, REDUCE aux_sym_module_repeat1 2 0 0, SHIFT_REPEAT 3638]),
    (223, [ENTRY 2 True, REDUCE aux_sym_module_repeat1 2 0 0, SHIFT_REPEAT 3629]),
    (226, [ENTRY 2 False, REDUCE aux_sym_module_repeat1 2 0 0, SHIFT_REPEAT 12484]),
    (229, [ENTRY 2 False, REDUCE aux_sym_module_repeat1 2 0 0, SHIFT_REPEAT 12471]),
    (232, [ENTRY 2 False, REDUCE aux_sym_module_repeat1 2 0 0, SHIFT_REPEAT 6733]),
    (235, [ENTRY 2 False, REDUCE aux_sym_module_repeat1 2 0 0, SHIFT_REPEAT 1218]),
    (238, [ENTRY 2 False, REDUCE aux_sym_module_repeat1 2 0 0, SHIFT_REPEAT 12524]),
    (241, [ENTRY 2 False, REDUCE aux_sym_module_repeat1 2 0 0, SHIFT_REPEAT 6770]),
    (244, [ENTRY 2 False, REDUCE aux_sym_module_repeat1 2 0 0, SHIFT_REPEAT 12482]),
    (247, [ENTRY 2 True, REDUCE aux_sym_module_repeat1 2 0 0, SHIFT_REPEAT 4178]),
    (250, [ENTRY 2 True, REDUCE aux_sym_module_repeat1 2 0 0, SHIFT_REPEAT 6830]),
    (253, [ENTRY 2 False, REDUCE aux_sym_module_repeat1 2 0 0, SHIFT_REPEAT 6744]),
    (256, [ENTRY 2 False, REDUCE aux_sym_module_repeat1 2 0 0, SHIFT_REPEAT 4275]),
    (259, [ENTRY 2 False, REDUCE aux_sym_module_repeat1 2 0 0, SHIFT_REPEAT 7836]),
    (262, [ENTRY 2 False, REDUCE aux_sym_module_repeat1 2 0 0, SHIFT_REPEAT 3862]),
    (265, [ENTRY 2 True, REDUCE aux_sym_module_repeat1 2 0 0, SHIFT_REPEAT 7017]),
    (268, [ENTRY 2 False, REDUCE aux_sym_module_repeat1 2 0 0, SHIFT_REPEAT 12355]),
    (271, [ENTRY 2 False, REDUCE aux_sym_module_repeat1 2 0 0, SHIFT_REPEAT 7017]),
    (274, [ENTRY 2 False, REDUCE aux_sym_module_repeat1 2 0 0, SHIFT_REPEAT 1862]),
    (277, [ENTRY 2 True, REDUCE aux_sym_module_repeat1 2 0 0, SHIFT_REPEAT 9606]),
    (280, [ENTRY 2 False, REDUCE aux_sym_module_repeat1 2 0 0, SHIFT_REPEAT 4263]),
    (283, [ENTRY 2 False, REDUCE aux_sym_module_repeat1 2 0 0, SHIFT_REPEAT 11994]),
    (286, [ENTRY 2 False, REDUCE aux_sym_module_repeat1 2 0 0, SHIFT_REPEAT 12683]),
    (289, [ENTRY 2 False, REDUCE aux_sym_module_repeat1 2 0 0, SHIFT_REPEAT 4172]),
    (292, [ENTRY 2 False, REDUCE aux_sym_module_repeat1 2 0 0, SHIFT_REPEAT 1845]),
    (295, [ENTRY 2 False, REDUCE aux_sym_module_repeat1 2 0 0, SHIFT_REPEAT 6727]),
    (298, [ENTRY 2 False, REDUCE aux_sym_module_repeat1 2 0 0, SHIFT_REPEAT 3994]),
    (301, [ENTRY 2 False, REDUCE aux_sym_module_repeat1 2 0 0, SHIFT_REPEAT 4173]),
    (304, [ENTRY 2 False, REDUCE aux_sym_module_repeat1 2 0 0, SHIFT_REPEAT 12521]),
    (307, [ENTRY 2 False, REDUCE aux_sym_module_repeat1 2 0 0, SHIFT_REPEAT 3974]),
    (310, [ENTRY 2 False, REDUCE aux_sym_module_repeat1 2 0 0, SHIFT_REPEAT 12433]),
    (313, [ENTRY 2 False, REDUCE aux_sym_module_repeat1 2 0 0, SHIFT_REPEAT 12530]),
    (316, [ENTRY 2 False, REDUCE aux_sym_module_repeat1 2 0 0, SHIFT_REPEAT 12686]),
    (319, [ENTRY 1 True, SHIFT 4056]), (321, [ENTRY 1 True, SHIFT 4081]),
    (323, [ENTRY 1 True, SHIFT 4006]), (325, [ENTRY 1 True, SHIFT 12367]),
    (327, [ENTRY 1 False, SHIFT 6748]), (329, [ENTRY 1 True, SHIFT 3647]),
    (331, [ENTRY 1 False, SHIFT 3228]), (333, [ENTRY 1 False, SHIFT 1219]),
    (335, [ENTRY 1 False, SHIFT 6725]), (337, [ENTRY 1 False, SHIFT 6759]),
    (339, [ENTRY 1 False, SHIFT 6765]), (341, [ENTRY 1 False, SHIFT 12119]),
    (343, [ENTRY 1 True, SHIFT 3649]), (345, [ENTRY 1 True, SHIFT 2859]),
    (347, [ENTRY 1 False, SHIFT 6726]), (349, [ENTRY 1 False, SHIFT 1214]),
    (351, [ENTRY 1 False, SHIFT 1861]), (353, [ENTRY 1 True, SHIFT 6539]),
    (355, [ENTRY 1 True, SHIFT 861])]"

definition parse_actions_1 :: "(nat \<times> TSParseActionEntry list) list" where "parse_actions_1 = [
    (357, [ENTRY 1 True, SHIFT 6117]), (359, [ENTRY 1 True, SHIFT 102]),
    (361, [ENTRY 1 True, SHIFT 6082]), (363, [ENTRY 1 True, SHIFT 756]),
    (365, [ENTRY 1 True, SHIFT 6083]), (367, [ENTRY 1 True, SHIFT 757]),
    (369, [ENTRY 1 True, SHIFT 4723]), (371, [ENTRY 1 True, SHIFT 161]),
    (373, [ENTRY 1 True, SHIFT 6095]), (375, [ENTRY 1 True, SHIFT 759]),
    (377, [ENTRY 1 True, SHIFT 5565]), (379, [ENTRY 1 True, SHIFT 347]),
    (381, [ENTRY 1 True, SHIFT 5492]), (383, [ENTRY 1 True, SHIFT 85]),
    (385, [ENTRY 1 True, SHIFT 6522]), (387, [ENTRY 1 True, SHIFT 435]),
    (389, [ENTRY 1 True, SHIFT 6106]), (391, [ENTRY 1 True, SHIFT 761]),
    (393, [ENTRY 1 True, SHIFT 6109]), (395, [ENTRY 1 True, SHIFT 762]),
    (397, [ENTRY 1 True, SHIFT 5238]), (399, [ENTRY 1 True, SHIFT 272]),
    (401, [ENTRY 1 True, SHIFT 6122]), (403, [ENTRY 1 True, SHIFT 764]),
    (405, [ENTRY 1 True, SHIFT 5602]), (407, [ENTRY 1 True, SHIFT 349]),
    (409, [ENTRY 1 True, SHIFT 5241]), (411, [ENTRY 1 True, SHIFT 273]),
    (413, [ENTRY 1 True, SHIFT 6127]), (415, [ENTRY 1 True, SHIFT 765]),
    (417, [ENTRY 1 True, SHIFT 4937]), (419, [ENTRY 1 True, SHIFT 570]),
    (421, [ENTRY 1 True, SHIFT 4763]), (423, [ENTRY 1 True, SHIFT 165]),
    (425, [ENTRY 1 True, SHIFT 4951]), (427, [ENTRY 1 True, SHIFT 572]),
    (429, [ENTRY 1 True, SHIFT 4953]), (431, [ENTRY 1 True, SHIFT 573]),
    (433, [ENTRY 1 True, SHIFT 6146]), (435, [ENTRY 1 True, SHIFT 768]),
    (437, [ENTRY 1 True, SHIFT 6147]), (439, [ENTRY 1 True, SHIFT 769]),
    (441, [ENTRY 1 True, SHIFT 5626]), (443, [ENTRY 1 True, SHIFT 351]),
    (445, [ENTRY 1 True, SHIFT 6154]), (447, [ENTRY 1 True, SHIFT 771]),
    (449, [ENTRY 1 True, SHIFT 4961]), (451, [ENTRY 1 True, SHIFT 575]),
    (453, [ENTRY 1 True, SHIFT 5249]), (455, [ENTRY 1 True, SHIFT 275]),
    (457, [ENTRY 1 True, SHIFT 6159]), (459, [ENTRY 1 True, SHIFT 772]),
    (461, [ENTRY 1 True, SHIFT 6174]), (463, [ENTRY 1 True, SHIFT 104]),
    (465, [ENTRY 1 True, SHIFT 4772]), (467, [ENTRY 1 True, SHIFT 167]),
    (469, [ENTRY 1 True, SHIFT 6167]), (471, [ENTRY 1 True, SHIFT 774]),
    (473, [ENTRY 1 True, SHIFT 4981]), (475, [ENTRY 1 True, SHIFT 577]),
    (477, [ENTRY 1 True, SHIFT 4982]), (479, [ENTRY 1 True, SHIFT 578]),
    (481, [ENTRY 1 True, SHIFT 6173]), (483, [ENTRY 1 True, SHIFT 776]),
    (485, [ENTRY 1 True, SHIFT 6564]), (487, [ENTRY 1 True, SHIFT 440]),
    (489, [ENTRY 1 True, SHIFT 4995]), (491, [ENTRY 1 True, SHIFT 580]),
    (493, [ENTRY 1 True, SHIFT 5256]), (495, [ENTRY 1 True, SHIFT 276]),
    (497, [ENTRY 1 True, SHIFT 4777]), (499, [ENTRY 1 True, SHIFT 168]),
    (501, [ENTRY 1 True, SHIFT 5027]), (503, [ENTRY 1 True, SHIFT 581]),
    (505, [ENTRY 1 True, SHIFT 5020]), (507, [ENTRY 1 True, SHIFT 217]),
    (509, [ENTRY 1 True, SHIFT 5265]), (511, [ENTRY 1 True, SHIFT 278]),
    (513, [ENTRY 1 True, SHIFT 4673]), (515, [ENTRY 1 True, SHIFT 126]),
    (517, [ENTRY 1 True, SHIFT 6208]), (519, [ENTRY 1 True, SHIFT 783]),
    (521, [ENTRY 1 True, SHIFT 6592]), (523, [ENTRY 1 True, SHIFT 444]),
    (525, [ENTRY 1 True, SHIFT 6223]), (527, [ENTRY 1 True, SHIFT 785]),
    (529, [ENTRY 1 True, SHIFT 6224]), (531, [ENTRY 1 True, SHIFT 786]),
    (533, [ENTRY 1 True, SHIFT 5034]), (535, [ENTRY 1 True, SHIFT 219]),
    (537, [ENTRY 1 True, SHIFT 6233]), (539, [ENTRY 1 True, SHIFT 788]),
    (541, [ENTRY 1 True, SHIFT 6603]), (543, [ENTRY 1 True, SHIFT 446]),
    (545, [ENTRY 1 True, SHIFT 6611]), (547, [ENTRY 1 True, SHIFT 447]),
    (549, [ENTRY 1 True, SHIFT 5206]), (551, [ENTRY 1 True, SHIFT 589]),
    (553, [ENTRY 1 True, SHIFT 6242]), (555, [ENTRY 1 True, SHIFT 790]),
    (557, [ENTRY 1 True, SHIFT 6243]), (559, [ENTRY 1 True, SHIFT 791]),
    (561, [ENTRY 1 True, SHIFT 5272]), (563, [ENTRY 1 True, SHIFT 280]),
    (565, [ENTRY 1 True, SHIFT 6255]), (567, [ENTRY 1 True, SHIFT 793]),
    (569, [ENTRY 1 True, SHIFT 5216]), (571, [ENTRY 1 True, SHIFT 591]),
    (573, [ENTRY 1 True, SHIFT 5218]), (575, [ENTRY 1 True, SHIFT 592]),
    (577, [ENTRY 1 True, SHIFT 6261]), (579, [ENTRY 1 True, SHIFT 794]),
    (581, [ENTRY 1 True, SHIFT 6627]), (583, [ENTRY 1 True, SHIFT 449]),
    (585, [ENTRY 1 True, SHIFT 5236]), (587, [ENTRY 1 True, SHIFT 594]),
    (589, [ENTRY 1 True, SHIFT 4789]), (591, [ENTRY 1 True, SHIFT 170]),
    (593, [ENTRY 1 True, SHIFT 5711]), (595, [ENTRY 1 True, SHIFT 359]),
    (597, [ENTRY 1 True, SHIFT 6278]), (599, [ENTRY 1 True, SHIFT 797]),
    (601, [ENTRY 1 True, SHIFT 6279]), (603, [ENTRY 1 True, SHIFT 798]),
    (605, [ENTRY 1 True, SHIFT 5316]), (607, [ENTRY 1 True, SHIFT 70]),
    (609, [ENTRY 1 True, SHIFT 6288]), (611, [ENTRY 1 True, SHIFT 800]),
    (613, [ENTRY 1 True, SHIFT 5271]), (615, [ENTRY 1 True, SHIFT 596]),
    (617, [ENTRY 1 True, SHIFT 5283]), (619, [ENTRY 1 True, SHIFT 597]),
    (621, [ENTRY 1 True, SHIFT 6292]), (623, [ENTRY 1 True, SHIFT 801]),
    (625, [ENTRY 1 True, SHIFT 5040]), (627, [ENTRY 1 True, SHIFT 221]),
    (629, [ENTRY 1 True, SHIFT 5318]), (631, [ENTRY 1 True, SHIFT 599]),
    (633, [ENTRY 1 True, SHIFT 6299]), (635, [ENTRY 1 True, SHIFT 803]),
    (637, [ENTRY 1 True, SHIFT 5292]), (639, [ENTRY 1 True, SHIFT 285]),
    (641, [ENTRY 1 True, SHIFT 5511]), (643, [ENTRY 1 True, SHIFT 87]),
    (645, [ENTRY 1 True, SHIFT 6306]), (647, [ENTRY 1 True, SHIFT 805]),
    (649, [ENTRY 1 True, SHIFT 5337]), (651, [ENTRY 1 True, SHIFT 600]),
    (653, [ENTRY 1 True, SHIFT 4804]), (655, [ENTRY 1 True, SHIFT 171])]"

definition parse_actions_2 :: "(nat \<times> TSParseActionEntry list) list" where "parse_actions_2 = [
    (657, [ENTRY 1 True, SHIFT 5738]), (659, [ENTRY 1 True, SHIFT 363]),
    (661, [ENTRY 1 True, SHIFT 5369]), (663, [ENTRY 1 True, SHIFT 602]),
    (665, [ENTRY 1 True, SHIFT 5300]), (667, [ENTRY 1 True, SHIFT 287]),
    (669, [ENTRY 1 True, SHIFT 5765]), (671, [ENTRY 1 True, SHIFT 365]),
    (673, [ENTRY 1 True, SHIFT 5768]), (675, [ENTRY 1 True, SHIFT 366]),
    (677, [ENTRY 1 True, SHIFT 5073]), (679, [ENTRY 1 True, SHIFT 51]),
    (681, [ENTRY 1 True, SHIFT 5790]), (683, [ENTRY 1 True, SHIFT 368]),
    (685, [ENTRY 1 True, SHIFT 5054]), (687, [ENTRY 1 True, SHIFT 226]),
    (689, [ENTRY 1 True, SHIFT 4486]), (691, [ENTRY 1 True, SHIFT 135]),
    (693, [ENTRY 1 True, SHIFT 6354]), (695, [ENTRY 1 True, SHIFT 813]),
    (697, [ENTRY 1 True, SHIFT 5320]), (699, [ENTRY 1 True, SHIFT 292]),
    (701, [ENTRY 1 True, SHIFT 4802]), (703, [ENTRY 1 True, SHIFT 32]),
    (705, [ENTRY 1 True, SHIFT 5069]), (707, [ENTRY 1 True, SHIFT 231]),
    (709, [ENTRY 1 True, SHIFT 5893]), (711, [ENTRY 1 True, SHIFT 371]),
    (713, [ENTRY 1 True, SHIFT 5533]), (715, [ENTRY 1 True, SHIFT 615]),
    (717, [ENTRY 1 True, SHIFT 6376]), (719, [ENTRY 1 True, SHIFT 817]),
    (721, [ENTRY 1 True, SHIFT 6695]), (723, [ENTRY 1 True, SHIFT 455]),
    (725, [ENTRY 1 True, SHIFT 6385]), (727, [ENTRY 1 True, SHIFT 819]),
    (729, [ENTRY 1 True, SHIFT 6387]), (731, [ENTRY 1 True, SHIFT 820]),
    (733, [ENTRY 1 True, SHIFT 4500]), (735, [ENTRY 1 True, SHIFT 137]),
    (737, [ENTRY 1 True, SHIFT 6395]), (739, [ENTRY 1 True, SHIFT 822]),
    (741, [ENTRY 1 True, SHIFT 5926]), (743, [ENTRY 1 True, SHIFT 373]),
    (745, [ENTRY 1 True, SHIFT 5930]), (747, [ENTRY 1 True, SHIFT 374]),
    (749, [ENTRY 1 True, SHIFT 4506]), (751, [ENTRY 1 True, SHIFT 138]),
    (753, [ENTRY 1 True, SHIFT 5577]), (755, [ENTRY 1 True, SHIFT 619]),
    (757, [ENTRY 1 True, SHIFT 5943]), (759, [ENTRY 1 True, SHIFT 376]),
    (761, [ENTRY 1 True, SHIFT 6408]), (763, [ENTRY 1 True, SHIFT 825]),
    (765, [ENTRY 1 True, SHIFT 5583]), (767, [ENTRY 1 True, SHIFT 621]),
    (769, [ENTRY 1 True, SHIFT 6416]), (771, [ENTRY 1 True, SHIFT 827]),
    (773, [ENTRY 1 True, SHIFT 6417]), (775, [ENTRY 1 True, SHIFT 828]),
    (777, [ENTRY 1 True, SHIFT 5584]), (779, [ENTRY 1 True, SHIFT 622]),
    (781, [ENTRY 1 True, SHIFT 6424]), (783, [ENTRY 1 True, SHIFT 830]),
    (785, [ENTRY 1 True, SHIFT 5059]), (787, [ENTRY 1 True, SHIFT 49]),
    (789, [ENTRY 1 True, SHIFT 5589]), (791, [ENTRY 1 True, SHIFT 624]),
    (793, [ENTRY 1 True, SHIFT 4514]), (795, [ENTRY 1 True, SHIFT 140]),
    (797, [ENTRY 1 True, SHIFT 6430]), (799, [ENTRY 1 True, SHIFT 832]),
    (801, [ENTRY 1 True, SHIFT 6432]), (803, [ENTRY 1 True, SHIFT 833]),
    (805, [ENTRY 1 True, SHIFT 5605]), (807, [ENTRY 1 True, SHIFT 625]),
    (809, [ENTRY 1 True, SHIFT 6440]), (811, [ENTRY 1 True, SHIFT 835]),
    (813, [ENTRY 1 True, SHIFT 5253]), (815, [ENTRY 1 True, SHIFT 63]),
    (817, [ENTRY 1 True, SHIFT 5957]), (819, [ENTRY 1 True, SHIFT 378]),
    (821, [ENTRY 1 True, SHIFT 6445]), (823, [ENTRY 1 True, SHIFT 836]),
    (825, [ENTRY 1 True, SHIFT 5961]), (827, [ENTRY 1 True, SHIFT 379]),
    (829, [ENTRY 1 True, SHIFT 5423]), (831, [ENTRY 1 True, SHIFT 79]),
    (833, [ENTRY 1 True, SHIFT 5977]), (835, [ENTRY 1 True, SHIFT 381]),
    (837, [ENTRY 1 True, SHIFT 5429]), (839, [ENTRY 1 True, SHIFT 80]),
    (841, [ENTRY 1 True, SHIFT 4526]), (843, [ENTRY 1 True, SHIFT 142]),
    (845, [ENTRY 1 True, SHIFT 5992]), (847, [ENTRY 1 True, SHIFT 382]),
    (849, [ENTRY 1 True, SHIFT 4878]), (851, [ENTRY 1 True, SHIFT 184]),
    (853, [ENTRY 1 True, SHIFT 4530]), (855, [ENTRY 1 True, SHIFT 143]),
    (857, [ENTRY 1 True, SHIFT 5360]), (859, [ENTRY 1 True, SHIFT 300]),
    (861, [ENTRY 1 True, SHIFT 6475]), (863, [ENTRY 1 True, SHIFT 841]),
    (865, [ENTRY 1 True, SHIFT 5643]), (867, [ENTRY 1 True, SHIFT 638]),
    (869, [ENTRY 1 True, SHIFT 4965]), (871, [ENTRY 1 True, SHIFT 42]),
    (873, [ENTRY 1 True, SHIFT 4458]), (875, [ENTRY 1 True, SHIFT 462]),
    (877, [ENTRY 1 True, SHIFT 5368]), (879, [ENTRY 1 True, SHIFT 302]),
    (881, [ENTRY 1 True, SHIFT 5370]), (883, [ENTRY 1 True, SHIFT 303]),
    (885, [ENTRY 1 True, SHIFT 6487]), (887, [ENTRY 1 True, SHIFT 845]),
    (889, [ENTRY 1 True, SHIFT 4555]), (891, [ENTRY 1 True, SHIFT 145]),
    (893, [ENTRY 1 True, SHIFT 6492]), (895, [ENTRY 1 True, SHIFT 847]),
    (897, [ENTRY 1 True, SHIFT 6493]), (899, [ENTRY 1 True, SHIFT 848]),
    (901, [ENTRY 1 True, SHIFT 5664]), (903, [ENTRY 1 True, SHIFT 642]),
    (905, [ENTRY 1 True, SHIFT 6498]), (907, [ENTRY 1 True, SHIFT 850]),
    (909, [ENTRY 1 True, SHIFT 5378]), (911, [ENTRY 1 True, SHIFT 305]),
    (913, [ENTRY 1 True, SHIFT 5669]), (915, [ENTRY 1 True, SHIFT 644]),
    (917, [ENTRY 1 True, SHIFT 5670]), (919, [ENTRY 1 True, SHIFT 645]),
    (921, [ENTRY 1 True, SHIFT 6604]), (923, [ENTRY 1 True, SHIFT 115]),
    (925, [ENTRY 1 True, SHIFT 5678]), (927, [ENTRY 1 True, SHIFT 647]),
    (929, [ENTRY 1 True, SHIFT 6509]), (931, [ENTRY 1 True, SHIFT 853]),
    (933, [ENTRY 1 True, SHIFT 6055]), (935, [ENTRY 1 True, SHIFT 387]),
    (937, [ENTRY 1 True, SHIFT 6514]), (939, [ENTRY 1 True, SHIFT 855]),
    (941, [ENTRY 1 True, SHIFT 6516]), (943, [ENTRY 1 True, SHIFT 856]),
    (945, [ENTRY 1 True, SHIFT 5682]), (947, [ENTRY 1 True, SHIFT 648]),
    (949, [ENTRY 1 True, SHIFT 6525]), (951, [ENTRY 1 True, SHIFT 858]),
    (953, [ENTRY 1 True, SHIFT 5959]), (955, [ENTRY 1 True, SHIFT 96])]"

definition parse_actions_3 :: "(nat \<times> TSParseActionEntry list) list" where "parse_actions_3 = [
    (957, [ENTRY 1 True, SHIFT 4895]), (959, [ENTRY 1 True, SHIFT 188]),
    (961, [ENTRY 1 True, SHIFT 5688]), (963, [ENTRY 1 True, SHIFT 650]),
    (965, [ENTRY 1 True, SHIFT 6535]), (967, [ENTRY 1 True, SHIFT 860]),
    (969, [ENTRY 1 True, SHIFT 4848]), (971, [ENTRY 1 True, SHIFT 557]),
    (973, [ENTRY 1 True, SHIFT 5386]), (975, [ENTRY 1 True, SHIFT 307]),
    (977, [ENTRY 1 True, SHIFT 6546]), (979, [ENTRY 1 True, SHIFT 863]),
    (981, [ENTRY 1 True, SHIFT 5389]), (983, [ENTRY 1 True, SHIFT 308]),
    (985, [ENTRY 1 True, SHIFT 5120]), (987, [ENTRY 1 True, SHIFT 242]),
    (989, [ENTRY 1 True, SHIFT 6552]), (991, [ENTRY 1 True, SHIFT 864]),
    (993, [ENTRY 1 True, SHIFT 4834]), (995, [ENTRY 1 True, SHIFT 555]),
    (997, [ENTRY 1 True, SHIFT 6080]), (999, [ENTRY 1 True, SHIFT 391]),
    (1001, [ENTRY 1 True, SHIFT 5398]), (1003, [ENTRY 1 True, SHIFT 310]),
    (1005, [ENTRY 1 True, SHIFT 5729]), (1007, [ENTRY 1 True, SHIFT 660]),
    (1009, [ENTRY 1 True, SHIFT 6093]), (1011, [ENTRY 1 True, SHIFT 393]),
    (1013, [ENTRY 1 True, SHIFT 6097]), (1015, [ENTRY 1 True, SHIFT 394]),
    (1017, [ENTRY 1 True, SHIFT 4574]), (1019, [ENTRY 1 True, SHIFT 146]),
    (1021, [ENTRY 1 True, SHIFT 5546]), (1023, [ENTRY 1 True, SHIFT 343]),
    (1025, [ENTRY 1 True, SHIFT 6116]), (1027, [ENTRY 1 True, SHIFT 396]),
    (1029, [ENTRY 1 True, SHIFT 4902]), (1031, [ENTRY 1 True, SHIFT 190]),
    (1033, [ENTRY 1 True, SHIFT 5406]), (1035, [ENTRY 1 True, SHIFT 311]),
    (1037, [ENTRY 1 True, SHIFT 5549]), (1039, [ENTRY 1 True, SHIFT 344]),
    (1041, [ENTRY 1 True, SHIFT 6607]), (1043, [ENTRY 1 True, SHIFT 870]),
    (1045, [ENTRY 1 True, SHIFT 4904]), (1047, [ENTRY 1 True, SHIFT 191]),
    (1049, [ENTRY 1 True, SHIFT 5130]), (1051, [ENTRY 1 True, SHIFT 245]),
    (1053, [ENTRY 1 True, SHIFT 5132]), (1055, [ENTRY 1 True, SHIFT 246]),
    (1057, [ENTRY 1 True, SHIFT 6143]), (1059, [ENTRY 1 True, SHIFT 399]),
    (1061, [ENTRY 1 True, SHIFT 6650]), (1063, [ENTRY 1 True, SHIFT 117]),
    (1065, [ENTRY 1 True, SHIFT 5771]), (1067, [ENTRY 1 True, SHIFT 671]),
    (1069, [ENTRY 1 True, SHIFT 6163]), (1071, [ENTRY 1 True, SHIFT 401]),
    (1073, [ENTRY 1 True, SHIFT 5781]), (1075, [ENTRY 1 True, SHIFT 673]),
    (1077, [ENTRY 1 True, SHIFT 6639]), (1079, [ENTRY 1 True, SHIFT 875]),
    (1081, [ENTRY 1 True, SHIFT 6169]), (1083, [ENTRY 1 True, SHIFT 402]),
    (1085, [ENTRY 1 True, SHIFT 5419]), (1087, [ENTRY 1 True, SHIFT 314]),
    (1089, [ENTRY 1 True, SHIFT 5785]), (1091, [ENTRY 1 True, SHIFT 675]),
    (1093, [ENTRY 1 True, SHIFT 6194]), (1095, [ENTRY 1 True, SHIFT 404]),
    (1097, [ENTRY 1 True, SHIFT 5422]), (1099, [ENTRY 1 True, SHIFT 315]),
    (1101, [ENTRY 1 True, SHIFT 6657]), (1103, [ENTRY 1 True, SHIFT 879]),
    (1105, [ENTRY 1 True, SHIFT 5139]), (1107, [ENTRY 1 True, SHIFT 248]),
    (1109, [ENTRY 1 True, SHIFT 6666]), (1111, [ENTRY 1 True, SHIFT 881]),
    (1113, [ENTRY 1 True, SHIFT 6667]), (1115, [ENTRY 1 True, SHIFT 882]),
    (1117, [ENTRY 1 True, SHIFT 5798]), (1119, [ENTRY 1 True, SHIFT 680]),
    (1121, [ENTRY 1 True, SHIFT 6673]), (1123, [ENTRY 1 True, SHIFT 884]),
    (1125, [ENTRY 1 True, SHIFT 5430]), (1127, [ENTRY 1 True, SHIFT 317]),
    (1129, [ENTRY 1 True, SHIFT 6206]), (1131, [ENTRY 1 True, SHIFT 406]),
    (1133, [ENTRY 1 True, SHIFT 5815]), (1135, [ENTRY 1 True, SHIFT 685]),
    (1137, [ENTRY 1 True, SHIFT 4583]), (1139, [ENTRY 1 True, SHIFT 492]),
    (1141, [ENTRY 1 True, SHIFT 6210]), (1143, [ENTRY 1 True, SHIFT 407]),
    (1145, [ENTRY 1 True, SHIFT 4912]), (1147, [ENTRY 1 True, SHIFT 193]),
    (1149, [ENTRY 1 True, SHIFT 6222]), (1151, [ENTRY 1 True, SHIFT 409]),
    (1153, [ENTRY 1 True, SHIFT 6689]), (1155, [ENTRY 1 True, SHIFT 118]),
    (1157, [ENTRY 1 True, SHIFT 5438]), (1159, [ENTRY 1 True, SHIFT 318]),
    (1161, [ENTRY 1 True, SHIFT 6238]), (1163, [ENTRY 1 True, SHIFT 410]),
    (1165, [ENTRY 1 True, SHIFT 4622]), (1167, [ENTRY 1 True, SHIFT 501]),
    (1169, [ENTRY 1 True, SHIFT 5144]), (1171, [ENTRY 1 True, SHIFT 249]),
    (1173, [ENTRY 1 True, SHIFT 4915]), (1175, [ENTRY 1 True, SHIFT 194]),
    (1177, [ENTRY 1 True, SHIFT 4317]), (1179, [ENTRY 1 True, SHIFT 889]),
    (1181, [ENTRY 1 True, SHIFT 5448]), (1183, [ENTRY 1 True, SHIFT 320]),
    (1185, [ENTRY 1 True, SHIFT 4599]), (1187, [ENTRY 1 True, SHIFT 148]),
    (1189, [ENTRY 1 True, SHIFT 5152]), (1191, [ENTRY 1 True, SHIFT 251]),
    (1193, [ENTRY 1 True, SHIFT 4642]), (1195, [ENTRY 1 True, SHIFT 508]),
    (1197, [ENTRY 1 True, SHIFT 5456]), (1199, [ENTRY 1 True, SHIFT 322]),
    (1201, [ENTRY 1 True, SHIFT 5849]), (1203, [ENTRY 1 True, SHIFT 696]),
    (1205, [ENTRY 1 True, SHIFT 5972]), (1207, [ENTRY 1 True, SHIFT 97]),
    (1209, [ENTRY 1 True, SHIFT 4646]), (1211, [ENTRY 1 True, SHIFT 510]),
    (1213, [ENTRY 1 True, SHIFT 4334]), (1215, [ENTRY 1 True, SHIFT 894]),
    (1217, [ENTRY 1 True, SHIFT 4922]), (1219, [ENTRY 1 True, SHIFT 196]),
    (1221, [ENTRY 1 True, SHIFT 5857]), (1223, [ENTRY 1 True, SHIFT 699]),
    (1225, [ENTRY 1 True, SHIFT 5858]), (1227, [ENTRY 1 True, SHIFT 700]),
    (1229, [ENTRY 1 True, SHIFT 5157]), (1231, [ENTRY 1 True, SHIFT 253]),
    (1233, [ENTRY 1 True, SHIFT 5863]), (1235, [ENTRY 1 True, SHIFT 702]),
    (1237, [ENTRY 1 True, SHIFT 4346]), (1239, [ENTRY 1 True, SHIFT 898]),
    (1241, [ENTRY 1 True, SHIFT 4454]), (1243, [ENTRY 1 True, SHIFT 120]),
    (1245, [ENTRY 1 True, SHIFT 4351]), (1247, [ENTRY 1 True, SHIFT 900]),
    (1249, [ENTRY 1 True, SHIFT 4352]), (1251, [ENTRY 1 True, SHIFT 901]),
    (1253, [ENTRY 1 True, SHIFT 4661]), (1255, [ENTRY 1 True, SHIFT 515])]"

definition parse_actions_4 :: "(nat \<times> TSParseActionEntry list) list" where "parse_actions_4 = [
    (1257, [ENTRY 1 True, SHIFT 4357]), (1259, [ENTRY 1 True, SHIFT 903]),
    (1261, [ENTRY 1 True, SHIFT 5868]), (1263, [ENTRY 1 True, SHIFT 703]),
    (1265, [ENTRY 1 True, SHIFT 5449]), (1267, [ENTRY 1 True, SHIFT 82]),
    (1269, [ENTRY 1 True, SHIFT 6006]), (1271, [ENTRY 1 True, SHIFT 99]),
    (1273, [ENTRY 1 True, SHIFT 5874]), (1275, [ENTRY 1 True, SHIFT 705]),
    (1277, [ENTRY 1 True, SHIFT 5173]), (1279, [ENTRY 1 True, SHIFT 258]),
    (1281, [ENTRY 1 True, SHIFT 4942]), (1283, [ENTRY 1 True, SHIFT 201]),
    (1285, [ENTRY 1 True, SHIFT 5878]), (1287, [ENTRY 1 True, SHIFT 707]),
    (1289, [ENTRY 1 True, SHIFT 4692]), (1291, [ENTRY 1 True, SHIFT 520]),
    (1293, [ENTRY 1 True, SHIFT 6314]), (1295, [ENTRY 1 True, SHIFT 416]),
    (1297, [ENTRY 1 True, SHIFT 5486]), (1299, [ENTRY 1 True, SHIFT 329]),
    (1301, [ENTRY 1 True, SHIFT 5890]), (1303, [ENTRY 1 True, SHIFT 712]),
    (1305, [ENTRY 1 True, SHIFT 4696]), (1307, [ENTRY 1 True, SHIFT 522]),
    (1309, [ENTRY 1 True, SHIFT 5117]), (1311, [ENTRY 1 True, SHIFT 56]),
    (1313, [ENTRY 1 True, SHIFT 5897]), (1315, [ENTRY 1 True, SHIFT 714]),
    (1317, [ENTRY 1 True, SHIFT 5494]), (1319, [ENTRY 1 True, SHIFT 331]),
    (1321, [ENTRY 1 True, SHIFT 5497]), (1323, [ENTRY 1 True, SHIFT 332]),
    (1325, [ENTRY 1 True, SHIFT 4714]), (1327, [ENTRY 1 True, SHIFT 527]),
    (1329, [ENTRY 1 True, SHIFT 5909]), (1331, [ENTRY 1 True, SHIFT 719]),
    (1333, [ENTRY 1 True, SHIFT 5182]), (1335, [ENTRY 1 True, SHIFT 260]),
    (1337, [ENTRY 1 True, SHIFT 4387]), (1339, [ENTRY 1 True, SHIFT 909]),
    (1341, [ENTRY 1 True, SHIFT 5505]), (1343, [ENTRY 1 True, SHIFT 334]),
    (1345, [ENTRY 1 True, SHIFT 4686]), (1347, [ENTRY 1 True, SHIFT 122]),
    (1349, [ENTRY 1 True, SHIFT 4962]), (1351, [ENTRY 1 True, SHIFT 206]),
    (1353, [ENTRY 1 True, SHIFT 4736]), (1355, [ENTRY 1 True, SHIFT 536]),
    (1357, [ENTRY 1 True, SHIFT 4737]), (1359, [ENTRY 1 True, SHIFT 537]),
    (1361, [ENTRY 1 True, SHIFT 6351]), (1363, [ENTRY 1 True, SHIFT 421]),
    (1365, [ENTRY 1 True, SHIFT 4742]), (1367, [ENTRY 1 True, SHIFT 539]),
    (1369, [ENTRY 1 True, SHIFT 5035]), (1371, [ENTRY 1 True, SHIFT 123]),
    (1373, [ENTRY 1 True, SHIFT 5513]), (1375, [ENTRY 1 True, SHIFT 336]),
    (1377, [ENTRY 1 True, SHIFT 5944]), (1379, [ENTRY 1 True, SHIFT 726]),
    (1381, [ENTRY 1 True, SHIFT 5948]), (1383, [ENTRY 1 True, SHIFT 727]),
    (1385, [ENTRY 1 True, SHIFT 4748]), (1387, [ENTRY 1 True, SHIFT 540]),
    (1389, [ENTRY 1 True, SHIFT 5960]), (1391, [ENTRY 1 True, SHIFT 729]),
    (1393, [ENTRY 1 True, SHIFT 5516]), (1395, [ENTRY 1 True, SHIFT 337]),
    (1397, [ENTRY 1 True, SHIFT 5204]), (1399, [ENTRY 1 True, SHIFT 265]),
    (1401, [ENTRY 1 True, SHIFT 5966]), (1403, [ENTRY 1 True, SHIFT 730]),
    (1405, [ENTRY 1 True, SHIFT 4760]), (1407, [ENTRY 1 True, SHIFT 542]),
    (1409, [ENTRY 1 True, SHIFT 5524]), (1411, [ENTRY 1 True, SHIFT 339]),
    (1413, [ENTRY 1 True, SHIFT 5976]), (1415, [ENTRY 1 True, SHIFT 732]),
    (1417, [ENTRY 1 True, SHIFT 4419]), (1419, [ENTRY 1 True, SHIFT 916]),
    (1421, [ENTRY 1 True, SHIFT 6381]), (1423, [ENTRY 1 True, SHIFT 425]),
    (1425, [ENTRY 1 True, SHIFT 4767]), (1427, [ENTRY 1 True, SHIFT 544]),
    (1429, [ENTRY 1 True, SHIFT 5986]), (1431, [ENTRY 1 True, SHIFT 734]),
    (1433, [ENTRY 1 True, SHIFT 5269]), (1435, [ENTRY 1 True, SHIFT 65]),
    (1437, [ENTRY 1 True, SHIFT 6393]), (1439, [ENTRY 1 True, SHIFT 427]),
    (1441, [ENTRY 1 True, SHIFT 6399]), (1443, [ENTRY 1 True, SHIFT 428]),
    (1445, [ENTRY 1 True, SHIFT 6002]), (1447, [ENTRY 1 True, SHIFT 739]),
    (1449, [ENTRY 1 True, SHIFT 4608]), (1451, [ENTRY 1 True, SHIFT 125]),
    (1453, [ENTRY 1 True, SHIFT 6419]), (1455, [ENTRY 1 True, SHIFT 430]),
    (1457, [ENTRY 1 True, SHIFT 6011]), (1459, [ENTRY 1 True, SHIFT 741]),
    (1461, [ENTRY 1 True, SHIFT 4816]), (1463, [ENTRY 1 True, SHIFT 551]),
    (1465, [ENTRY 1 True, SHIFT 4817]), (1467, [ENTRY 1 True, SHIFT 552]),
    (1469, [ENTRY 1 True, SHIFT 5532]), (1471, [ENTRY 1 True, SHIFT 340]),
    (1473, [ENTRY 1 True, SHIFT 6027]), (1475, [ENTRY 1 True, SHIFT 746]),
    (1477, [ENTRY 1 True, SHIFT 4826]), (1479, [ENTRY 1 True, SHIFT 554]),
    (1481, [ENTRY 1 True, SHIFT 6076]), (1483, [ENTRY 1 True, SHIFT 100]),
    (1485, [ENTRY 1 True, SHIFT 5462]), (1487, [ENTRY 1 True, SHIFT 83]),
    (1489, [ENTRY 1 True, SHIFT 4856]), (1491, [ENTRY 1 True, SHIFT 559]),
    (1493, [ENTRY 1 False, SHIFT 7108]),
    (1495, [ENTRY 1 True, REDUCE sym_primary_expression 1 0 1]),
    (1497, [ENTRY 1 False, REDUCE sym_primary_expression 1 0 1]),
    (1499, [ENTRY 2 True, REDUCE sym_primary_expression 1 0 1, SHIFT 3799]),
    (1502, [ENTRY 2 True, REDUCE sym_pattern 1 0 1, REDUCE sym_primary_expression 1 0 1]),
    (1505, [ENTRY 2 False, REDUCE sym_primary_expression 1 0 1, SHIFT 2856]),
    (1508, [ENTRY 1 False, SHIFT 7112]), (1510, [ENTRY 1 False, SHIFT 12374]),
    (1512, [ENTRY 1 True, REDUCE sym__named_expression_lhs 1 0 1]),
    (1514, [ENTRY 2 False, REDUCE sym_pattern 1 0 1, REDUCE sym_primary_expression 1 0 1]),
    (1517, [ENTRY 1 False, SHIFT 7105]), (1519, [ENTRY 1 True, SHIFT 1888]),
    (1521, [ENTRY 1 True, SHIFT 3635]),
    (1523, [ENTRY 2 False, REDUCE sym_primary_expression 1 0 1, SHIFT 2859]),
    (1526, [ENTRY 1 False, SHIFT 7106]), (1528, [ENTRY 1 False, REDUCE sym_pattern 1 0 1]),
    (1530, [ENTRY 2 False, REDUCE sym_primary_expression 1 0 1, SHIFT 6926]),
    (1533, [ENTRY 2 False, REDUCE sym_primary_expression 1 0 1, SHIFT 4231]),
    (1536, [ENTRY 1 True, SHIFT 6926]), (1538, [ENTRY 1 False, SHIFT 7844]),
    (1540, [ENTRY 1 True, REDUCE sym_pattern 1 0 1]), (1542, [ENTRY 1 True, SHIFT 7218]),
    (1544, [ENTRY 1 False, SHIFT 12297]), (1546, [ENTRY 1 False, SHIFT 7218]),
    (1548, [ENTRY 1 False, SHIFT 2005]), (1550, [ENTRY 1 True, SHIFT 9554]),
    (1552, [ENTRY 1 True, SHIFT 5558]), (1554, [ENTRY 1 True, SHIFT 346]),
    (1556, [ENTRY 1 True, SHIFT 6071]), (1558, [ENTRY 1 True, SHIFT 754]),
    (1560, [ENTRY 1 True, SHIFT 5703]), (1562, [ENTRY 1 True, SHIFT 655])]"

definition parse_actions_5 :: "(nat \<times> TSParseActionEntry list) list" where "parse_actions_5 = [
    (1564, [ENTRY 2 True, REDUCE sym_primary_expression 1 0 1, SHIFT 3800]),
    (1567, [ENTRY 1 False, SHIFT 6962]),
    (1569, [ENTRY 2 True, REDUCE sym_primary_expression 1 0 1, SHIFT 3764]),
    (1572, [ENTRY 2 False, REDUCE sym_primary_expression 1 0 1, SHIFT 6925]),
    (1575, [ENTRY 1 False, SHIFT 6957]), (1577, [ENTRY 1 False, SHIFT 4259]),
    (1579, [ENTRY 1 False, SHIFT 12384]), (1581, [ENTRY 1 False, SHIFT 6940]),
    (1583, [ENTRY 2 True, REDUCE sym_primary_expression 1 0 1, SHIFT 3765]),
    (1586, [ENTRY 2 False, REDUCE sym_primary_expression 1 0 1, SHIFT 6830]),
    (1589, [ENTRY 2 False, REDUCE sym_primary_expression 1 0 1, SHIFT 4275]),
    (1592, [ENTRY 1 False, SHIFT 1905]), (1594, [ENTRY 1 True, SHIFT 9582]),
    (1596, [ENTRY 1 False, SHIFT 6786]), (1598, [ENTRY 1 True, SHIFT 5290]),
    (1600, [ENTRY 1 True, SHIFT 67]), (1602, [ENTRY 1 True, SHIFT 4450]),
    (1604, [ENTRY 1 True, SHIFT 465]), (1606, [ENTRY 1 True, SHIFT 3945]),
    (1608, [ENTRY 1 True, SHIFT 466]), (1610, [ENTRY 1 True, SHIFT 4295]),
    (1612, [ENTRY 1 True, SHIFT 467]), (1614, [ENTRY 1 True, SHIFT 4460]),
    (1616, [ENTRY 1 True, SHIFT 468]), (1618, [ENTRY 1 True, SHIFT 4462]),
    (1620, [ENTRY 1 True, SHIFT 469]), (1622, [ENTRY 1 True, SHIFT 4470]),
    (1624, [ENTRY 1 True, SHIFT 471]), (1626, [ENTRY 1 True, SHIFT 4484]),
    (1628, [ENTRY 1 True, SHIFT 472]), (1630, [ENTRY 1 True, SHIFT 5109]),
    (1632, [ENTRY 1 True, SHIFT 239]), (1634, [ENTRY 1 True, SHIFT 4503]),
    (1636, [ENTRY 1 True, SHIFT 473]), (1638, [ENTRY 1 True, SHIFT 4507]),
    (1640, [ENTRY 1 True, SHIFT 474]), (1642, [ENTRY 1 True, SHIFT 5114]),
    (1644, [ENTRY 1 True, SHIFT 240]), (1646, [ENTRY 1 True, SHIFT 5116]),
    (1648, [ENTRY 1 True, SHIFT 241]), (1650, [ENTRY 1 True, SHIFT 4533]),
    (1652, [ENTRY 1 True, SHIFT 477]), (1654, [ENTRY 1 True, SHIFT 4293]),
    (1656, [ENTRY 1 True, SHIFT 478]), (1658, [ENTRY 1 True, SHIFT 4083]),
    (1660, [ENTRY 1 True, SHIFT 479]), (1662, [ENTRY 1 True, SHIFT 4538]),
    (1664, [ENTRY 1 True, SHIFT 480]), (1666, [ENTRY 1 True, SHIFT 4546]),
    (1668, [ENTRY 1 True, SHIFT 481]), (1670, [ENTRY 1 True, SHIFT 4547]),
    (1672, [ENTRY 1 True, SHIFT 482]), (1674, [ENTRY 1 True, SHIFT 4549]),
    (1676, [ENTRY 1 True, SHIFT 483]), (1678, [ENTRY 1 True, SHIFT 4559]),
    (1680, [ENTRY 1 True, SHIFT 484]), (1682, [ENTRY 1 True, SHIFT 5123]),
    (1684, [ENTRY 1 True, SHIFT 243]), (1686, [ENTRY 1 True, SHIFT 4309]),
    (1688, [ENTRY 1 True, SHIFT 485]), (1690, [ENTRY 1 True, SHIFT 4299]),
    (1692, [ENTRY 1 True, SHIFT 486]), (1694, [ENTRY 1 True, SHIFT 4570]),
    (1696, [ENTRY 1 True, SHIFT 487]), (1698, [ENTRY 1 True, SHIFT 4571]),
    (1700, [ENTRY 1 True, SHIFT 488]), (1702, [ENTRY 1 True, SHIFT 4575]),
    (1704, [ENTRY 1 True, SHIFT 489]), (1706, [ENTRY 1 True, SHIFT 5127]),
    (1708, [ENTRY 1 True, SHIFT 244]), (1710, [ENTRY 1 True, SHIFT 4197]),
    (1712, [ENTRY 1 True, SHIFT 490]), (1714, [ENTRY 1 True, SHIFT 4199]),
    (1716, [ENTRY 1 True, SHIFT 491]), (1718, [ENTRY 1 True, SHIFT 12360]),
    (1720, [ENTRY 1 True, SHIFT 92]), (1722, [ENTRY 1 True, SHIFT 4674]),
    (1724, [ENTRY 1 True, SHIFT 27]), (1726, [ENTRY 1 True, SHIFT 4585]),
    (1728, [ENTRY 1 True, SHIFT 493]), (1730, [ENTRY 1 True, SHIFT 5136]),
    (1732, [ENTRY 1 True, SHIFT 247]), (1734, [ENTRY 1 True, SHIFT 4588]),
    (1736, [ENTRY 1 True, SHIFT 494]), (1738, [ENTRY 1 True, SHIFT 4592]),
    (1740, [ENTRY 1 True, SHIFT 495]), (1742, [ENTRY 1 True, SHIFT 4594]),
    (1744, [ENTRY 1 True, SHIFT 496]), (1746, [ENTRY 1 True, SHIFT 12363]),
    (1748, [ENTRY 1 True, SHIFT 93]), (1750, [ENTRY 1 True, SHIFT 4600]),
    (1752, [ENTRY 1 True, SHIFT 497]), (1754, [ENTRY 1 True, SHIFT 4602]),
    (1756, [ENTRY 1 True, SHIFT 498]), (1758, [ENTRY 1 True, SHIFT 5813]),
    (1760, [ENTRY 1 True, SHIFT 94]), (1762, [ENTRY 1 True, SHIFT 4291]),
    (1764, [ENTRY 1 True, SHIFT 499]), (1766, [ENTRY 1 True, SHIFT 4292]),
    (1768, [ENTRY 1 True, SHIFT 500]), (1770, [ENTRY 1 True, SHIFT 5947]),
    (1772, [ENTRY 1 True, SHIFT 95]), (1774, [ENTRY 1 True, SHIFT 5148]),
    (1776, [ENTRY 1 True, SHIFT 250]), (1778, [ENTRY 1 True, SHIFT 4624]),
    (1780, [ENTRY 1 True, SHIFT 502]), (1782, [ENTRY 1 True, SHIFT 4682]),
    (1784, [ENTRY 1 True, SHIFT 28]), (1786, [ENTRY 1 True, SHIFT 4627]),
    (1788, [ENTRY 1 True, SHIFT 503]), (1790, [ENTRY 1 True, SHIFT 4630]),
    (1792, [ENTRY 1 True, SHIFT 504]), (1794, [ENTRY 1 True, SHIFT 4632]),
    (1796, [ENTRY 1 True, SHIFT 505]), (1798, [ENTRY 1 True, SHIFT 4637]),
    (1800, [ENTRY 1 True, SHIFT 506]), (1802, [ENTRY 1 True, SHIFT 4638]),
    (1804, [ENTRY 1 True, SHIFT 507]), (1806, [ENTRY 1 True, SHIFT 4752]),
    (1808, [ENTRY 1 True, SHIFT 29]), (1810, [ENTRY 1 True, SHIFT 5155]),
    (1812, [ENTRY 1 True, SHIFT 252]), (1814, [ENTRY 1 True, SHIFT 5989]),
    (1816, [ENTRY 1 True, SHIFT 98]), (1818, [ENTRY 1 True, SHIFT 4644]),
    (1820, [ENTRY 1 True, SHIFT 509]), (1822, [ENTRY 1 True, SHIFT 5162]),
    (1824, [ENTRY 1 True, SHIFT 5]), (1826, [ENTRY 1 True, SHIFT 5161]),
    (1828, [ENTRY 1 True, SHIFT 254]), (1830, [ENTRY 1 True, SHIFT 3950]),
    (1832, [ENTRY 1 True, SHIFT 6]), (1834, [ENTRY 1 True, SHIFT 4650]),
    (1836, [ENTRY 1 True, SHIFT 511]), (1838, [ENTRY 1 True, SHIFT 5165]),
    (1840, [ENTRY 1 True, SHIFT 255]), (1842, [ENTRY 1 True, SHIFT 4654]),
    (1844, [ENTRY 1 True, SHIFT 512]), (1846, [ENTRY 1 True, SHIFT 4265]),
    (1848, [ENTRY 1 True, SHIFT 30]), (1850, [ENTRY 1 True, SHIFT 4657]),
    (1852, [ENTRY 1 True, SHIFT 513]), (1854, [ENTRY 1 True, SHIFT 4659]),
    (1856, [ENTRY 1 True, SHIFT 514]), (1858, [ENTRY 1 True, SHIFT 5167]),
    (1860, [ENTRY 1 True, SHIFT 256]), (1862, [ENTRY 1 True, SHIFT 4664]),
    (1864, [ENTRY 1 True, SHIFT 516]), (1866, [ENTRY 1 True, SHIFT 5170]),
    (1868, [ENTRY 1 True, SHIFT 257])]"

definition parse_actions_6 :: "(nat \<times> TSParseActionEntry list) list" where "parse_actions_6 = [
    (1870, [ENTRY 1 True, SHIFT 4666]), (1872, [ENTRY 1 True, SHIFT 517]),
    (1874, [ENTRY 1 True, SHIFT 4668]), (1876, [ENTRY 1 True, SHIFT 518]),
    (1878, [ENTRY 1 True, SHIFT 4671]), (1880, [ENTRY 1 True, SHIFT 519]),
    (1882, [ENTRY 1 True, SHIFT 4296]), (1884, [ENTRY 1 True, SHIFT 7]),
    (1886, [ENTRY 1 True, SHIFT 4119]), (1888, [ENTRY 1 True, SHIFT 31]),
    (1890, [ENTRY 1 True, SHIFT 5177]), (1892, [ENTRY 1 True, SHIFT 259]),
    (1894, [ENTRY 1 True, SHIFT 6098]), (1896, [ENTRY 1 True, SHIFT 101]),
    (1898, [ENTRY 1 True, SHIFT 4694]), (1900, [ENTRY 1 True, SHIFT 521]),
    (1902, [ENTRY 1 True, SHIFT 5239]), (1904, [ENTRY 1 True, SHIFT 8]),
    (1906, [ENTRY 1 True, SHIFT 5188]), (1908, [ENTRY 1 True, SHIFT 261]),
    (1910, [ENTRY 1 True, SHIFT 4701]), (1912, [ENTRY 1 True, SHIFT 2]),
    (1914, [ENTRY 1 True, SHIFT 4814]), (1916, [ENTRY 1 True, SHIFT 33]),
    (1918, [ENTRY 1 True, SHIFT 4704]), (1920, [ENTRY 1 True, SHIFT 524]),
    (1922, [ENTRY 1 True, SHIFT 5192]), (1924, [ENTRY 1 True, SHIFT 262]),
    (1926, [ENTRY 1 True, SHIFT 4708]), (1928, [ENTRY 1 True, SHIFT 525]),
    (1930, [ENTRY 1 True, SHIFT 4710]), (1932, [ENTRY 1 True, SHIFT 526]),
    (1934, [ENTRY 1 True, SHIFT 6144]), (1936, [ENTRY 1 True, SHIFT 103]),
    (1938, [ENTRY 1 True, SHIFT 5195]), (1940, [ENTRY 1 True, SHIFT 263]),
    (1942, [ENTRY 1 True, SHIFT 4718]), (1944, [ENTRY 1 True, SHIFT 528]),
    (1946, [ENTRY 1 True, SHIFT 4720]), (1948, [ENTRY 1 True, SHIFT 529]),
    (1950, [ENTRY 1 True, SHIFT 4722]), (1952, [ENTRY 1 True, SHIFT 530]),
    (1954, [ENTRY 1 True, SHIFT 4725]), (1956, [ENTRY 1 True, SHIFT 531]),
    (1958, [ENTRY 1 True, SHIFT 4071]), (1960, [ENTRY 1 True, SHIFT 532]),
    (1962, [ENTRY 1 True, SHIFT 4732]), (1964, [ENTRY 1 True, SHIFT 534]),
    (1966, [ENTRY 1 True, SHIFT 5200]), (1968, [ENTRY 1 True, SHIFT 264]),
    (1970, [ENTRY 1 True, SHIFT 4734]), (1972, [ENTRY 1 True, SHIFT 535]),
    (1974, [ENTRY 1 True, SHIFT 4827]), (1976, [ENTRY 1 True, SHIFT 34]),
    (1978, [ENTRY 1 True, SHIFT 5208]), (1980, [ENTRY 1 True, SHIFT 266]),
    (1982, [ENTRY 1 True, SHIFT 4740]), (1984, [ENTRY 1 True, SHIFT 538]),
    (1986, [ENTRY 1 True, SHIFT 5212]), (1988, [ENTRY 1 True, SHIFT 267]),
    (1990, [ENTRY 1 True, SHIFT 5217]), (1992, [ENTRY 1 True, SHIFT 268]),
    (1994, [ENTRY 1 True, SHIFT 5221]), (1996, [ENTRY 1 True, SHIFT 269]),
    (1998, [ENTRY 1 True, SHIFT 4756]), (2000, [ENTRY 1 True, SHIFT 541]),
    (2002, [ENTRY 1 True, SHIFT 6202]), (2004, [ENTRY 1 True, SHIFT 105]),
    (2006, [ENTRY 1 True, SHIFT 4835]), (2008, [ENTRY 1 True, SHIFT 35]),
    (2010, [ENTRY 1 True, SHIFT 4764]), (2012, [ENTRY 1 True, SHIFT 543]),
    (2014, [ENTRY 1 True, SHIFT 6214]), (2016, [ENTRY 1 True, SHIFT 106]),
    (2018, [ENTRY 1 True, SHIFT 6227]), (2020, [ENTRY 1 True, SHIFT 107]),
    (2022, [ENTRY 1 True, SHIFT 4774]), (2024, [ENTRY 1 True, SHIFT 545]),
    (2026, [ENTRY 1 True, SHIFT 5229]), (2028, [ENTRY 1 True, SHIFT 270]),
    (2030, [ENTRY 1 True, SHIFT 4781]), (2032, [ENTRY 1 True, SHIFT 546]),
    (2034, [ENTRY 1 True, SHIFT 4783]), (2036, [ENTRY 1 True, SHIFT 547]),
    (2038, [ENTRY 1 True, SHIFT 4785]), (2040, [ENTRY 1 True, SHIFT 548]),
    (2042, [ENTRY 1 True, SHIFT 4803]), (2044, [ENTRY 1 True, SHIFT 549]),
    (2046, [ENTRY 1 True, SHIFT 4809]), (2048, [ENTRY 1 True, SHIFT 550]),
    (2050, [ENTRY 1 True, SHIFT 6245]), (2052, [ENTRY 1 True, SHIFT 108]),
    (2054, [ENTRY 1 True, SHIFT 5235]), (2056, [ENTRY 1 True, SHIFT 271]),
    (2058, [ENTRY 1 True, SHIFT 4843]), (2060, [ENTRY 1 True, SHIFT 36]),
    (2062, [ENTRY 1 True, SHIFT 4821]), (2064, [ENTRY 1 True, SHIFT 553]),
    (2066, [ENTRY 1 True, SHIFT 5310]), (2068, [ENTRY 1 True, SHIFT 9]),
    (2070, [ENTRY 1 True, SHIFT 6322]), (2072, [ENTRY 1 True, SHIFT 109]),
    (2074, [ENTRY 1 True, SHIFT 5245]), (2076, [ENTRY 1 True, SHIFT 274]),
    (2078, [ENTRY 1 True, SHIFT 6347]), (2080, [ENTRY 1 True, SHIFT 110]),
    (2082, [ENTRY 1 True, SHIFT 4841]), (2084, [ENTRY 1 True, SHIFT 556]),
    (2086, [ENTRY 1 True, SHIFT 6398]), (2088, [ENTRY 1 True, SHIFT 111]),
    (2090, [ENTRY 1 True, SHIFT 4852]), (2092, [ENTRY 1 True, SHIFT 558]),
    (2094, [ENTRY 1 True, SHIFT 5261]), (2096, [ENTRY 1 True, SHIFT 277]),
    (2098, [ENTRY 1 True, SHIFT 6451]), (2100, [ENTRY 1 True, SHIFT 112]),
    (2102, [ENTRY 1 True, SHIFT 4861]), (2104, [ENTRY 1 True, SHIFT 560]),
    (2106, [ENTRY 1 True, SHIFT 4855]), (2108, [ENTRY 1 True, SHIFT 37]),
    (2110, [ENTRY 1 True, SHIFT 4869]), (2112, [ENTRY 1 True, SHIFT 561]),
    (2114, [ENTRY 1 True, SHIFT 5268]), (2116, [ENTRY 1 True, SHIFT 279]),
    (2118, [ENTRY 1 True, SHIFT 4881]), (2120, [ENTRY 1 True, SHIFT 562]),
    (2122, [ENTRY 1 True, SHIFT 4886]), (2124, [ENTRY 1 True, SHIFT 563]),
    (2126, [ENTRY 1 True, SHIFT 6572]), (2128, [ENTRY 1 True, SHIFT 113]),
    (2130, [ENTRY 1 True, SHIFT 4900]), (2132, [ENTRY 1 True, SHIFT 564]),
    (2134, [ENTRY 1 True, SHIFT 4903]), (2136, [ENTRY 1 True, SHIFT 565]),
    (2138, [ENTRY 1 True, SHIFT 4907]), (2140, [ENTRY 1 True, SHIFT 566]),
    (2142, [ENTRY 1 True, SHIFT 4910]), (2144, [ENTRY 1 True, SHIFT 567]),
    (2146, [ENTRY 1 True, SHIFT 5277]), (2148, [ENTRY 1 True, SHIFT 281]),
    (2150, [ENTRY 1 True, SHIFT 4860]), (2152, [ENTRY 1 True, SHIFT 38]),
    (2154, [ENTRY 1 True, SHIFT 4921]), (2156, [ENTRY 1 True, SHIFT 568]),
    (2158, [ENTRY 1 True, SHIFT 5280]), (2160, [ENTRY 1 True, SHIFT 282]),
    (2162, [ENTRY 1 True, SHIFT 4927]), (2164, [ENTRY 1 True, SHIFT 569]),
    (2166, [ENTRY 1 True, SHIFT 6588]), (2168, [ENTRY 1 True, SHIFT 114])]"

definition parse_actions_7 :: "(nat \<times> TSParseActionEntry list) list" where "parse_actions_7 = [
    (2170, [ENTRY 1 True, SHIFT 5284]), (2172, [ENTRY 1 True, SHIFT 283]),
    (2174, [ENTRY 1 True, SHIFT 4943]), (2176, [ENTRY 1 True, SHIFT 571]),
    (2178, [ENTRY 1 True, SHIFT 5289]), (2180, [ENTRY 1 True, SHIFT 284]),
    (2182, [ENTRY 1 True, SHIFT 4958]), (2184, [ENTRY 1 True, SHIFT 574]),
    (2186, [ENTRY 1 True, SHIFT 5295]), (2188, [ENTRY 1 True, SHIFT 286]),
    (2190, [ENTRY 1 True, SHIFT 6624]), (2192, [ENTRY 1 True, SHIFT 116]),
    (2194, [ENTRY 1 True, SHIFT 4976]), (2196, [ENTRY 1 True, SHIFT 576]),
    (2198, [ENTRY 1 True, SHIFT 5305]), (2200, [ENTRY 1 True, SHIFT 288]),
    (2202, [ENTRY 1 True, SHIFT 5309]), (2204, [ENTRY 1 True, SHIFT 289]),
    (2206, [ENTRY 1 True, SHIFT 4992]), (2208, [ENTRY 1 True, SHIFT 579]),
    (2210, [ENTRY 1 True, SHIFT 5313]), (2212, [ENTRY 1 True, SHIFT 290]),
    (2214, [ENTRY 1 True, SHIFT 5317]), (2216, [ENTRY 1 True, SHIFT 291]),
    (2218, [ENTRY 1 True, SHIFT 4447]), (2220, [ENTRY 1 True, SHIFT 119]),
    (2222, [ENTRY 1 True, SHIFT 5030]), (2224, [ENTRY 1 True, SHIFT 582]),
    (2226, [ENTRY 1 True, SHIFT 5324]), (2228, [ENTRY 1 True, SHIFT 293]),
    (2230, [ENTRY 1 True, SHIFT 5178]), (2232, [ENTRY 1 True, SHIFT 583]),
    (2234, [ENTRY 1 True, SHIFT 5181]), (2236, [ENTRY 1 True, SHIFT 584]),
    (2238, [ENTRY 1 True, SHIFT 5185]), (2240, [ENTRY 1 True, SHIFT 585]),
    (2242, [ENTRY 1 True, SHIFT 5187]), (2244, [ENTRY 1 True, SHIFT 586]),
    (2246, [ENTRY 1 True, SHIFT 5327]), (2248, [ENTRY 1 True, SHIFT 294]),
    (2250, [ENTRY 1 True, SHIFT 5196]), (2252, [ENTRY 1 True, SHIFT 587]),
    (2254, [ENTRY 1 True, SHIFT 5199]), (2256, [ENTRY 1 True, SHIFT 588]),
    (2258, [ENTRY 1 True, SHIFT 5331]), (2260, [ENTRY 1 True, SHIFT 295]),
    (2262, [ENTRY 1 True, SHIFT 5336]), (2264, [ENTRY 1 True, SHIFT 296]),
    (2266, [ENTRY 1 True, SHIFT 5213]), (2268, [ENTRY 1 True, SHIFT 590]),
    (2270, [ENTRY 1 True, SHIFT 4607]), (2272, [ENTRY 1 True, SHIFT 121]),
    (2274, [ENTRY 1 True, SHIFT 5230]), (2276, [ENTRY 1 True, SHIFT 593]),
    (2278, [ENTRY 1 True, SHIFT 5255]), (2280, [ENTRY 1 True, SHIFT 595]),
    (2282, [ENTRY 1 True, SHIFT 5348]), (2284, [ENTRY 1 True, SHIFT 297]),
    (2286, [ENTRY 1 True, SHIFT 4552]), (2288, [ENTRY 1 True, SHIFT 124]),
    (2290, [ENTRY 1 True, SHIFT 5303]), (2292, [ENTRY 1 True, SHIFT 598]),
    (2294, [ENTRY 1 True, SHIFT 5354]), (2296, [ENTRY 1 True, SHIFT 298]),
    (2298, [ENTRY 1 True, SHIFT 4287]), (2300, [ENTRY 1 True, SHIFT 39]),
    (2302, [ENTRY 1 True, SHIFT 5357]), (2304, [ENTRY 1 True, SHIFT 299]),
    (2306, [ENTRY 1 True, SHIFT 12325]), (2308, [ENTRY 1 True, SHIFT 40]),
    (2310, [ENTRY 1 True, SHIFT 5342]), (2312, [ENTRY 1 True, SHIFT 601]),
    (2314, [ENTRY 1 True, SHIFT 5365]), (2316, [ENTRY 1 True, SHIFT 301]),
    (2318, [ENTRY 1 True, SHIFT 4679]), (2320, [ENTRY 1 True, SHIFT 127]),
    (2322, [ENTRY 1 True, SHIFT 5373]), (2324, [ENTRY 1 True, SHIFT 603]),
    (2326, [ENTRY 1 True, SHIFT 4288]), (2328, [ENTRY 1 True, SHIFT 41]),
    (2330, [ENTRY 1 True, SHIFT 5379]), (2332, [ENTRY 1 True, SHIFT 604]),
    (2334, [ENTRY 1 True, SHIFT 5388]), (2336, [ENTRY 1 True, SHIFT 605]),
    (2338, [ENTRY 1 True, SHIFT 5395]), (2340, [ENTRY 1 True, SHIFT 606]),
    (2342, [ENTRY 1 True, SHIFT 5403]), (2344, [ENTRY 1 True, SHIFT 607]),
    (2346, [ENTRY 1 True, SHIFT 5405]), (2348, [ENTRY 1 True, SHIFT 608]),
    (2350, [ENTRY 1 True, SHIFT 5375]), (2352, [ENTRY 1 True, SHIFT 304]),
    (2354, [ENTRY 1 True, SHIFT 5421]), (2356, [ENTRY 1 True, SHIFT 609]),
    (2358, [ENTRY 1 True, SHIFT 5427]), (2360, [ENTRY 1 True, SHIFT 610]),
    (2362, [ENTRY 1 True, SHIFT 5435]), (2364, [ENTRY 1 True, SHIFT 611]),
    (2366, [ENTRY 1 True, SHIFT 5460]), (2368, [ENTRY 1 True, SHIFT 612]),
    (2370, [ENTRY 1 True, SHIFT 5383]), (2372, [ENTRY 1 True, SHIFT 306]),
    (2374, [ENTRY 1 True, SHIFT 5483]), (2376, [ENTRY 1 True, SHIFT 613]),
    (2378, [ENTRY 1 True, SHIFT 5496]), (2380, [ENTRY 1 True, SHIFT 614]),
    (2382, [ENTRY 1 True, SHIFT 5394]), (2384, [ENTRY 1 True, SHIFT 309]),
    (2386, [ENTRY 1 True, SHIFT 5550]), (2388, [ENTRY 1 True, SHIFT 616]),
    (2390, [ENTRY 1 True, SHIFT 5570]), (2392, [ENTRY 1 True, SHIFT 617]),
    (2394, [ENTRY 1 True, SHIFT 5573]), (2396, [ENTRY 1 True, SHIFT 618]),
    (2398, [ENTRY 1 True, SHIFT 5412]), (2400, [ENTRY 1 True, SHIFT 312]),
    (2402, [ENTRY 1 True, SHIFT 5580]), (2404, [ENTRY 1 True, SHIFT 620]),
    (2406, [ENTRY 1 True, SHIFT 5417]), (2408, [ENTRY 1 True, SHIFT 313]),
    (2410, [ENTRY 1 True, SHIFT 5587]), (2412, [ENTRY 1 True, SHIFT 623]),
    (2414, [ENTRY 1 True, SHIFT 5609]), (2416, [ENTRY 1 True, SHIFT 626]),
    (2418, [ENTRY 1 True, SHIFT 5426]), (2420, [ENTRY 1 True, SHIFT 316]),
    (2422, [ENTRY 1 True, SHIFT 5611]), (2424, [ENTRY 1 True, SHIFT 627]),
    (2426, [ENTRY 1 True, SHIFT 5613]), (2428, [ENTRY 1 True, SHIFT 628]),
    (2430, [ENTRY 1 True, SHIFT 5615]), (2432, [ENTRY 1 True, SHIFT 629]),
    (2434, [ENTRY 1 True, SHIFT 5618]), (2436, [ENTRY 1 True, SHIFT 630]),
    (2438, [ENTRY 1 True, SHIFT 5619]), (2440, [ENTRY 1 True, SHIFT 631]),
    (2442, [ENTRY 1 True, SHIFT 5622]), (2444, [ENTRY 1 True, SHIFT 632]),
    (2446, [ENTRY 1 True, SHIFT 5624]), (2448, [ENTRY 1 True, SHIFT 633]),
    (2450, [ENTRY 1 True, SHIFT 5627]), (2452, [ENTRY 1 True, SHIFT 634]),
    (2454, [ENTRY 1 True, SHIFT 12382]), (2456, [ENTRY 1 True, SHIFT 128]),
    (2458, [ENTRY 1 True, SHIFT 4974]), (2460, [ENTRY 1 True, SHIFT 43]),
    (2462, [ENTRY 1 True, SHIFT 5631]), (2464, [ENTRY 1 True, SHIFT 635]),
    (2466, [ENTRY 1 True, SHIFT 5444]), (2468, [ENTRY 1 True, SHIFT 319])]"

definition parse_actions_8 :: "(nat \<times> TSParseActionEntry list) list" where "parse_actions_8 = [
    (2470, [ENTRY 1 True, SHIFT 5171]), (2472, [ENTRY 1 True, SHIFT 129]),
    (2474, [ENTRY 1 True, SHIFT 5635]), (2476, [ENTRY 1 True, SHIFT 636]),
    (2478, [ENTRY 1 True, SHIFT 5639]), (2480, [ENTRY 1 True, SHIFT 637]),
    (2482, [ENTRY 1 True, SHIFT 5601]), (2484, [ENTRY 1 True, SHIFT 130]),
    (2486, [ENTRY 1 True, SHIFT 5451]), (2488, [ENTRY 1 True, SHIFT 321]),
    (2490, [ENTRY 1 True, SHIFT 5651]), (2492, [ENTRY 1 True, SHIFT 639]),
    (2494, [ENTRY 1 True, SHIFT 4448]), (2496, [ENTRY 1 True, SHIFT 131]),
    (2498, [ENTRY 1 True, SHIFT 5656]), (2500, [ENTRY 1 True, SHIFT 640]),
    (2502, [ENTRY 1 True, SHIFT 5461]), (2504, [ENTRY 1 True, SHIFT 323]),
    (2506, [ENTRY 1 True, SHIFT 5661]), (2508, [ENTRY 1 True, SHIFT 641]),
    (2510, [ENTRY 1 True, SHIFT 4465]), (2512, [ENTRY 1 True, SHIFT 132]),
    (2514, [ENTRY 1 True, SHIFT 5465]), (2516, [ENTRY 1 True, SHIFT 324]),
    (2518, [ENTRY 1 True, SHIFT 5667]), (2520, [ENTRY 1 True, SHIFT 643]),
    (2522, [ENTRY 1 True, SHIFT 5468]), (2524, [ENTRY 1 True, SHIFT 325]),
    (2526, [ENTRY 1 True, SHIFT 5473]), (2528, [ENTRY 1 True, SHIFT 326]),
    (2530, [ENTRY 1 True, SHIFT 5674]), (2532, [ENTRY 1 True, SHIFT 646]),
    (2534, [ENTRY 1 True, SHIFT 4983]), (2536, [ENTRY 1 True, SHIFT 44]),
    (2538, [ENTRY 1 True, SHIFT 4476]), (2540, [ENTRY 1 True, SHIFT 133]),
    (2542, [ENTRY 1 True, SHIFT 5479]), (2544, [ENTRY 1 True, SHIFT 327]),
    (2546, [ENTRY 1 True, SHIFT 5685]), (2548, [ENTRY 1 True, SHIFT 649]),
    (2550, [ENTRY 1 True, SHIFT 5482]), (2552, [ENTRY 1 True, SHIFT 328]),
    (2554, [ENTRY 1 True, SHIFT 4480]), (2556, [ENTRY 1 True, SHIFT 134]),
    (2558, [ENTRY 1 True, SHIFT 5691]), (2560, [ENTRY 1 True, SHIFT 651]),
    (2562, [ENTRY 1 True, SHIFT 4990]), (2564, [ENTRY 1 True, SHIFT 45]),
    (2566, [ENTRY 1 True, SHIFT 5696]), (2568, [ENTRY 1 True, SHIFT 652]),
    (2570, [ENTRY 1 True, SHIFT 5699]), (2572, [ENTRY 1 True, SHIFT 653]),
    (2574, [ENTRY 1 True, SHIFT 5701]), (2576, [ENTRY 1 True, SHIFT 654]),
    (2578, [ENTRY 1 True, SHIFT 5491]), (2580, [ENTRY 1 True, SHIFT 330]),
    (2582, [ENTRY 1 True, SHIFT 4996]), (2584, [ENTRY 1 True, SHIFT 46]),
    (2586, [ENTRY 1 True, SHIFT 5707]), (2588, [ENTRY 1 True, SHIFT 656]),
    (2590, [ENTRY 1 True, SHIFT 4496]), (2592, [ENTRY 1 True, SHIFT 136]),
    (2594, [ENTRY 1 True, SHIFT 5712]), (2596, [ENTRY 1 True, SHIFT 657]),
    (2598, [ENTRY 1 True, SHIFT 5717]), (2600, [ENTRY 1 True, SHIFT 658]),
    (2602, [ENTRY 1 True, SHIFT 5724]), (2604, [ENTRY 1 True, SHIFT 659]),
    (2606, [ENTRY 1 True, SHIFT 5502]), (2608, [ENTRY 1 True, SHIFT 333]),
    (2610, [ENTRY 1 True, SHIFT 5731]), (2612, [ENTRY 1 True, SHIFT 661]),
    (2614, [ENTRY 1 True, SHIFT 5517]), (2616, [ENTRY 1 True, SHIFT 11]),
    (2618, [ENTRY 1 True, SHIFT 5733]), (2620, [ENTRY 1 True, SHIFT 662]),
    (2622, [ENTRY 1 True, SHIFT 5735]), (2624, [ENTRY 1 True, SHIFT 663]),
    (2626, [ENTRY 1 True, SHIFT 5737]), (2628, [ENTRY 1 True, SHIFT 664]),
    (2630, [ENTRY 1 True, SHIFT 5032]), (2632, [ENTRY 1 True, SHIFT 47]),
    (2634, [ENTRY 1 True, SHIFT 5741]), (2636, [ENTRY 1 True, SHIFT 665]),
    (2638, [ENTRY 1 True, SHIFT 5742]), (2640, [ENTRY 1 True, SHIFT 666]),
    (2642, [ENTRY 1 True, SHIFT 4512]), (2644, [ENTRY 1 True, SHIFT 139]),
    (2646, [ENTRY 1 True, SHIFT 5510]), (2648, [ENTRY 1 True, SHIFT 335]),
    (2650, [ENTRY 1 True, SHIFT 5038]), (2652, [ENTRY 1 True, SHIFT 48]),
    (2654, [ENTRY 1 True, SHIFT 5752]), (2656, [ENTRY 1 True, SHIFT 667]),
    (2658, [ENTRY 1 True, SHIFT 4518]), (2660, [ENTRY 1 True, SHIFT 141]),
    (2662, [ENTRY 1 True, SHIFT 5521]), (2664, [ENTRY 1 True, SHIFT 338]),
    (2666, [ENTRY 1 True, SHIFT 5758]), (2668, [ENTRY 1 True, SHIFT 668]),
    (2670, [ENTRY 1 True, SHIFT 5603]), (2672, [ENTRY 1 True, SHIFT 12]),
    (2674, [ENTRY 1 True, SHIFT 9758]), (2676, [ENTRY 1 True, SHIFT 4]),
    (2678, [ENTRY 1 True, SHIFT 5762]), (2680, [ENTRY 1 True, SHIFT 669]),
    (2682, [ENTRY 1 True, SHIFT 5766]), (2684, [ENTRY 1 True, SHIFT 670]),
    (2686, [ENTRY 1 True, SHIFT 4540]), (2688, [ENTRY 1 True, SHIFT 144]),
    (2690, [ENTRY 1 True, SHIFT 5538]), (2692, [ENTRY 1 True, SHIFT 341]),
    (2694, [ENTRY 1 True, SHIFT 5774]), (2696, [ENTRY 1 True, SHIFT 672]),
    (2698, [ENTRY 1 True, SHIFT 5068]), (2700, [ENTRY 1 True, SHIFT 50]),
    (2702, [ENTRY 1 True, SHIFT 5543]), (2704, [ENTRY 1 True, SHIFT 342]),
    (2706, [ENTRY 1 True, SHIFT 5783]), (2708, [ENTRY 1 True, SHIFT 674]),
    (2710, [ENTRY 1 True, SHIFT 5928]), (2712, [ENTRY 1 True, SHIFT 13]),
    (2714, [ENTRY 1 True, SHIFT 5788]), (2716, [ENTRY 1 True, SHIFT 676]),
    (2718, [ENTRY 1 True, SHIFT 4591]), (2720, [ENTRY 1 True, SHIFT 147]),
    (2722, [ENTRY 1 True, SHIFT 5792]), (2724, [ENTRY 1 True, SHIFT 677]),
    (2726, [ENTRY 1 True, SHIFT 5554]), (2728, [ENTRY 1 True, SHIFT 345]),
    (2730, [ENTRY 1 True, SHIFT 5794]), (2732, [ENTRY 1 True, SHIFT 678]),
    (2734, [ENTRY 1 True, SHIFT 5796]), (2736, [ENTRY 1 True, SHIFT 679]),
    (2738, [ENTRY 1 True, SHIFT 5082]), (2740, [ENTRY 1 True, SHIFT 52]),
    (2742, [ENTRY 1 True, SHIFT 5806]), (2744, [ENTRY 1 True, SHIFT 681]),
    (2746, [ENTRY 1 True, SHIFT 5088]), (2748, [ENTRY 1 True, SHIFT 53]),
    (2750, [ENTRY 1 True, SHIFT 5808]), (2752, [ENTRY 1 True, SHIFT 682]),
    (2754, [ENTRY 1 True, SHIFT 5810]), (2756, [ENTRY 1 True, SHIFT 683]),
    (2758, [ENTRY 1 True, SHIFT 5812]), (2760, [ENTRY 1 True, SHIFT 684]),
    (2762, [ENTRY 1 True, SHIFT 4604]), (2764, [ENTRY 1 True, SHIFT 149]),
    (2766, [ENTRY 1 True, SHIFT 5817]), (2768, [ENTRY 1 True, SHIFT 686])]"

definition parse_actions_9 :: "(nat \<times> TSParseActionEntry list) list" where "parse_actions_9 = [
    (2770, [ENTRY 1 True, SHIFT 5571]), (2772, [ENTRY 1 True, SHIFT 348]),
    (2774, [ENTRY 1 True, SHIFT 5819]), (2776, [ENTRY 1 True, SHIFT 687]),
    (2778, [ENTRY 1 True, SHIFT 5821]), (2780, [ENTRY 1 True, SHIFT 688]),
    (2782, [ENTRY 1 True, SHIFT 5823]), (2784, [ENTRY 1 True, SHIFT 689]),
    (2786, [ENTRY 1 True, SHIFT 4609]), (2788, [ENTRY 1 True, SHIFT 150]),
    (2790, [ENTRY 1 True, SHIFT 5826]), (2792, [ENTRY 1 True, SHIFT 690]),
    (2794, [ENTRY 1 True, SHIFT 5827]), (2796, [ENTRY 1 True, SHIFT 691]),
    (2798, [ENTRY 1 True, SHIFT 4614]), (2800, [ENTRY 1 True, SHIFT 151]),
    (2802, [ENTRY 1 True, SHIFT 5608]), (2804, [ENTRY 1 True, SHIFT 350]),
    (2806, [ENTRY 1 True, SHIFT 5833]), (2808, [ENTRY 1 True, SHIFT 692]),
    (2810, [ENTRY 1 True, SHIFT 4619]), (2812, [ENTRY 1 True, SHIFT 152]),
    (2814, [ENTRY 1 True, SHIFT 5640]), (2816, [ENTRY 1 True, SHIFT 352]),
    (2818, [ENTRY 1 True, SHIFT 5094]), (2820, [ENTRY 1 True, SHIFT 54]),
    (2822, [ENTRY 1 True, SHIFT 5839]), (2824, [ENTRY 1 True, SHIFT 693]),
    (2826, [ENTRY 1 True, SHIFT 5646]), (2828, [ENTRY 1 True, SHIFT 353]),
    (2830, [ENTRY 1 True, SHIFT 4629]), (2832, [ENTRY 1 True, SHIFT 153]),
    (2834, [ENTRY 1 True, SHIFT 5844]), (2836, [ENTRY 1 True, SHIFT 694]),
    (2838, [ENTRY 1 True, SHIFT 5650]), (2840, [ENTRY 1 True, SHIFT 354]),
    (2842, [ENTRY 1 True, SHIFT 5846]), (2844, [ENTRY 1 True, SHIFT 695]),
    (2846, [ENTRY 1 True, SHIFT 5657]), (2848, [ENTRY 1 True, SHIFT 355]),
    (2850, [ENTRY 1 True, SHIFT 5852]), (2852, [ENTRY 1 True, SHIFT 697]),
    (2854, [ENTRY 1 True, SHIFT 4635]), (2856, [ENTRY 1 True, SHIFT 154]),
    (2858, [ENTRY 1 True, SHIFT 5855]), (2860, [ENTRY 1 True, SHIFT 698]),
    (2862, [ENTRY 1 True, SHIFT 5680]), (2864, [ENTRY 1 True, SHIFT 356]),
    (2866, [ENTRY 1 True, SHIFT 4652]), (2868, [ENTRY 1 True, SHIFT 155]),
    (2870, [ENTRY 1 True, SHIFT 5861]), (2872, [ENTRY 1 True, SHIFT 701]),
    (2874, [ENTRY 1 True, SHIFT 5695]), (2876, [ENTRY 1 True, SHIFT 357]),
    (2878, [ENTRY 1 True, SHIFT 4656]), (2880, [ENTRY 1 True, SHIFT 156]),
    (2882, [ENTRY 1 True, SHIFT 5706]), (2884, [ENTRY 1 True, SHIFT 358]),
    (2886, [ENTRY 1 True, SHIFT 5871]), (2888, [ENTRY 1 True, SHIFT 704]),
    (2890, [ENTRY 1 True, SHIFT 4678]), (2892, [ENTRY 1 True, SHIFT 157]),
    (2894, [ENTRY 1 True, SHIFT 5716]), (2896, [ENTRY 1 True, SHIFT 360]),
    (2898, [ENTRY 1 True, SHIFT 5876]), (2900, [ENTRY 1 True, SHIFT 706]),
    (2902, [ENTRY 1 True, SHIFT 5097]), (2904, [ENTRY 1 True, SHIFT 55]),
    (2906, [ENTRY 1 True, SHIFT 6105]), (2908, [ENTRY 1 True, SHIFT 14]),
    (2910, [ENTRY 1 True, SHIFT 5721]), (2912, [ENTRY 1 True, SHIFT 361]),
    (2914, [ENTRY 1 True, SHIFT 5881]), (2916, [ENTRY 1 True, SHIFT 708]),
    (2918, [ENTRY 1 True, SHIFT 6130]), (2920, [ENTRY 1 True, SHIFT 15]),
    (2922, [ENTRY 1 True, SHIFT 5884]), (2924, [ENTRY 1 True, SHIFT 709]),
    (2926, [ENTRY 1 True, SHIFT 5725]), (2928, [ENTRY 1 True, SHIFT 362]),
    (2930, [ENTRY 1 True, SHIFT 5886]), (2932, [ENTRY 1 True, SHIFT 710]),
    (2934, [ENTRY 1 True, SHIFT 5888]), (2936, [ENTRY 1 True, SHIFT 711]),
    (2938, [ENTRY 1 True, SHIFT 4691]), (2940, [ENTRY 1 True, SHIFT 158]),
    (2942, [ENTRY 1 True, SHIFT 5895]), (2944, [ENTRY 1 True, SHIFT 713]),
    (2946, [ENTRY 1 True, SHIFT 5128]), (2948, [ENTRY 1 True, SHIFT 57]),
    (2950, [ENTRY 1 True, SHIFT 5749]), (2952, [ENTRY 1 True, SHIFT 364]),
    (2954, [ENTRY 1 True, SHIFT 4706]), (2956, [ENTRY 1 True, SHIFT 159]),
    (2958, [ENTRY 1 True, SHIFT 5900]), (2960, [ENTRY 1 True, SHIFT 715]),
    (2962, [ENTRY 1 True, SHIFT 5903]), (2964, [ENTRY 1 True, SHIFT 716]),
    (2966, [ENTRY 1 True, SHIFT 4713]), (2968, [ENTRY 1 True, SHIFT 160]),
    (2970, [ENTRY 1 True, SHIFT 5905]), (2972, [ENTRY 1 True, SHIFT 717]),
    (2974, [ENTRY 1 True, SHIFT 5907]), (2976, [ENTRY 1 True, SHIFT 718]),
    (2978, [ENTRY 1 True, SHIFT 5778]), (2980, [ENTRY 1 True, SHIFT 367]),
    (2982, [ENTRY 1 True, SHIFT 5134]), (2984, [ENTRY 1 True, SHIFT 58]),
    (2986, [ENTRY 1 True, SHIFT 5911]), (2988, [ENTRY 1 True, SHIFT 720]),
    (2990, [ENTRY 1 True, SHIFT 5913]), (2992, [ENTRY 1 True, SHIFT 721]),
    (2994, [ENTRY 1 True, SHIFT 5916]), (2996, [ENTRY 1 True, SHIFT 722]),
    (2998, [ENTRY 1 True, SHIFT 5921]), (3000, [ENTRY 1 True, SHIFT 723]),
    (3002, [ENTRY 1 True, SHIFT 5142]), (3004, [ENTRY 1 True, SHIFT 59]),
    (3006, [ENTRY 1 True, SHIFT 4730]), (3008, [ENTRY 1 True, SHIFT 162]),
    (3010, [ENTRY 1 True, SHIFT 5804]), (3012, [ENTRY 1 True, SHIFT 369]),
    (3014, [ENTRY 1 True, SHIFT 5864]), (3016, [ENTRY 1 True, SHIFT 370]),
    (3018, [ENTRY 1 True, SHIFT 5932]), (3020, [ENTRY 1 True, SHIFT 724]),
    (3022, [ENTRY 1 True, SHIFT 5149]), (3024, [ENTRY 1 True, SHIFT 60]),
    (3026, [ENTRY 1 True, SHIFT 4751]), (3028, [ENTRY 1 True, SHIFT 163]),
    (3030, [ENTRY 1 True, SHIFT 5939]), (3032, [ENTRY 1 True, SHIFT 725]),
    (3034, [ENTRY 1 True, SHIFT 5920]), (3036, [ENTRY 1 True, SHIFT 372]),
    (3038, [ENTRY 1 True, SHIFT 4754]), (3040, [ENTRY 1 True, SHIFT 164]),
    (3042, [ENTRY 1 True, SHIFT 5955]), (3044, [ENTRY 1 True, SHIFT 728]),
    (3046, [ENTRY 1 True, SHIFT 5937]), (3048, [ENTRY 1 True, SHIFT 375]),
    (3050, [ENTRY 1 True, SHIFT 4770]), (3052, [ENTRY 1 True, SHIFT 166]),
    (3054, [ENTRY 1 True, SHIFT 5970]), (3056, [ENTRY 1 True, SHIFT 731]),
    (3058, [ENTRY 1 True, SHIFT 5953]), (3060, [ENTRY 1 True, SHIFT 377]),
    (3062, [ENTRY 1 True, SHIFT 5979]), (3064, [ENTRY 1 True, SHIFT 733]),
    (3066, [ENTRY 1 True, SHIFT 4787]), (3068, [ENTRY 1 True, SHIFT 169])]"

definition parse_actions_10 :: "(nat \<times> TSParseActionEntry list) list" where "parse_actions_10 = [
    (3070, [ENTRY 1 True, SHIFT 5971]), (3072, [ENTRY 1 True, SHIFT 380]),
    (3074, [ENTRY 1 True, SHIFT 5990]), (3076, [ENTRY 1 True, SHIFT 735]),
    (3078, [ENTRY 1 True, SHIFT 5994]), (3080, [ENTRY 1 True, SHIFT 736]),
    (3082, [ENTRY 1 True, SHIFT 5997]), (3084, [ENTRY 1 True, SHIFT 737]),
    (3086, [ENTRY 1 True, SHIFT 5999]), (3088, [ENTRY 1 True, SHIFT 738]),
    (3090, [ENTRY 1 True, SHIFT 6009]), (3092, [ENTRY 1 True, SHIFT 740]),
    (3094, [ENTRY 1 True, SHIFT 6004]), (3096, [ENTRY 1 True, SHIFT 383]),
    (3098, [ENTRY 1 True, SHIFT 6016]), (3100, [ENTRY 1 True, SHIFT 742]),
    (3102, [ENTRY 1 True, SHIFT 6021]), (3104, [ENTRY 1 True, SHIFT 743]),
    (3106, [ENTRY 1 True, SHIFT 6023]), (3108, [ENTRY 1 True, SHIFT 744]),
    (3110, [ENTRY 1 True, SHIFT 6025]), (3112, [ENTRY 1 True, SHIFT 745]),
    (3114, [ENTRY 1 True, SHIFT 6018]), (3116, [ENTRY 1 True, SHIFT 384]),
    (3118, [ENTRY 1 True, SHIFT 6030]), (3120, [ENTRY 1 True, SHIFT 747]),
    (3122, [ENTRY 1 True, SHIFT 6035]), (3124, [ENTRY 1 True, SHIFT 748]),
    (3126, [ENTRY 1 True, SHIFT 6037]), (3128, [ENTRY 1 True, SHIFT 749]),
    (3130, [ENTRY 1 True, SHIFT 6040]), (3132, [ENTRY 1 True, SHIFT 750]),
    (3134, [ENTRY 1 True, SHIFT 6034]), (3136, [ENTRY 1 True, SHIFT 385]),
    (3138, [ENTRY 1 True, SHIFT 6048]), (3140, [ENTRY 1 True, SHIFT 386]),
    (3142, [ENTRY 1 True, SHIFT 6049]), (3144, [ENTRY 1 True, SHIFT 751]),
    (3146, [ENTRY 1 True, SHIFT 6062]), (3148, [ENTRY 1 True, SHIFT 388]),
    (3150, [ENTRY 1 True, SHIFT 6058]), (3152, [ENTRY 1 True, SHIFT 752]),
    (3154, [ENTRY 1 True, SHIFT 6064]), (3156, [ENTRY 1 True, SHIFT 753]),
    (3158, [ENTRY 1 True, SHIFT 6070]), (3160, [ENTRY 1 True, SHIFT 389]),
    (3162, [ENTRY 1 True, SHIFT 6078]), (3164, [ENTRY 1 True, SHIFT 755]),
    (3166, [ENTRY 1 True, SHIFT 6075]), (3168, [ENTRY 1 True, SHIFT 390]),
    (3170, [ENTRY 1 True, SHIFT 4807]), (3172, [ENTRY 1 True, SHIFT 172]),
    (3174, [ENTRY 1 True, SHIFT 6090]), (3176, [ENTRY 1 True, SHIFT 758]),
    (3178, [ENTRY 1 True, SHIFT 6088]), (3180, [ENTRY 1 True, SHIFT 392]),
    (3182, [ENTRY 1 True, SHIFT 4810]), (3184, [ENTRY 1 True, SHIFT 173]),
    (3186, [ENTRY 1 True, SHIFT 6103]), (3188, [ENTRY 1 True, SHIFT 760]),
    (3190, [ENTRY 1 True, SHIFT 4815]), (3192, [ENTRY 1 True, SHIFT 174]),
    (3194, [ENTRY 1 True, SHIFT 6108]), (3196, [ENTRY 1 True, SHIFT 395]),
    (3198, [ENTRY 1 True, SHIFT 6115]), (3200, [ENTRY 1 True, SHIFT 763]),
    (3202, [ENTRY 1 True, SHIFT 4823]), (3204, [ENTRY 1 True, SHIFT 175]),
    (3206, [ENTRY 1 True, SHIFT 6128]), (3208, [ENTRY 1 True, SHIFT 397]),
    (3210, [ENTRY 1 True, SHIFT 4832]), (3212, [ENTRY 1 True, SHIFT 176]),
    (3214, [ENTRY 1 True, SHIFT 6133]), (3216, [ENTRY 1 True, SHIFT 766]),
    (3218, [ENTRY 1 True, SHIFT 6136]), (3220, [ENTRY 1 True, SHIFT 398]),
    (3222, [ENTRY 1 True, SHIFT 6138]), (3224, [ENTRY 1 True, SHIFT 767]),
    (3226, [ENTRY 1 True, SHIFT 4836]), (3228, [ENTRY 1 True, SHIFT 177]),
    (3230, [ENTRY 1 True, SHIFT 6153]), (3232, [ENTRY 1 True, SHIFT 400]),
    (3234, [ENTRY 1 True, SHIFT 6150]), (3236, [ENTRY 1 True, SHIFT 770]),
    (3238, [ENTRY 1 True, SHIFT 4847]), (3240, [ENTRY 1 True, SHIFT 178]),
    (3242, [ENTRY 1 True, SHIFT 6188]), (3244, [ENTRY 1 True, SHIFT 403]),
    (3246, [ENTRY 1 True, SHIFT 4850]), (3248, [ENTRY 1 True, SHIFT 179]),
    (3250, [ENTRY 1 True, SHIFT 6162]), (3252, [ENTRY 1 True, SHIFT 773]),
    (3254, [ENTRY 1 True, SHIFT 4859]), (3256, [ENTRY 1 True, SHIFT 180]),
    (3258, [ENTRY 1 True, SHIFT 6201]), (3260, [ENTRY 1 True, SHIFT 405]),
    (3262, [ENTRY 1 True, SHIFT 6171]), (3264, [ENTRY 1 True, SHIFT 775]),
    (3266, [ENTRY 1 True, SHIFT 6177]), (3268, [ENTRY 1 True, SHIFT 777]),
    (3270, [ENTRY 1 True, SHIFT 6218]), (3272, [ENTRY 1 True, SHIFT 408]),
    (3274, [ENTRY 1 True, SHIFT 6181]), (3276, [ENTRY 1 True, SHIFT 778]),
    (3278, [ENTRY 1 True, SHIFT 4868]), (3280, [ENTRY 1 True, SHIFT 181]),
    (3282, [ENTRY 1 True, SHIFT 6183]), (3284, [ENTRY 1 True, SHIFT 779]),
    (3286, [ENTRY 1 True, SHIFT 6185]), (3288, [ENTRY 1 True, SHIFT 780]),
    (3290, [ENTRY 1 True, SHIFT 12340]), (3292, [ENTRY 1 True, SHIFT 61]),
    (3294, [ENTRY 1 True, SHIFT 4873]), (3296, [ENTRY 1 True, SHIFT 182]),
    (3298, [ENTRY 1 True, SHIFT 6196]), (3300, [ENTRY 1 True, SHIFT 781]),
    (3302, [ENTRY 1 True, SHIFT 12430]), (3304, [ENTRY 1 True, SHIFT 62]),
    (3306, [ENTRY 1 True, SHIFT 6203]), (3308, [ENTRY 1 True, SHIFT 782]),
    (3310, [ENTRY 1 True, SHIFT 6248]), (3312, [ENTRY 1 True, SHIFT 411]),
    (3314, [ENTRY 1 True, SHIFT 4875]), (3316, [ENTRY 1 True, SHIFT 183]),
    (3318, [ENTRY 1 True, SHIFT 6217]), (3320, [ENTRY 1 True, SHIFT 784]),
    (3322, [ENTRY 1 True, SHIFT 4883]), (3324, [ENTRY 1 True, SHIFT 185]),
    (3326, [ENTRY 1 True, SHIFT 6230]), (3328, [ENTRY 1 True, SHIFT 787]),
    (3330, [ENTRY 1 True, SHIFT 6262]), (3332, [ENTRY 1 True, SHIFT 412]),
    (3334, [ENTRY 1 True, SHIFT 5260]), (3336, [ENTRY 1 True, SHIFT 64]),
    (3338, [ENTRY 1 True, SHIFT 6239]), (3340, [ENTRY 1 True, SHIFT 789]),
    (3342, [ENTRY 1 True, SHIFT 4889]), (3344, [ENTRY 1 True, SHIFT 186]),
    (3346, [ENTRY 1 True, SHIFT 4610]), (3348, [ENTRY 1 True, SHIFT 17]),
    (3350, [ENTRY 1 True, SHIFT 6276]), (3352, [ENTRY 1 True, SHIFT 413]),
    (3354, [ENTRY 1 True, SHIFT 4892]), (3356, [ENTRY 1 True, SHIFT 187]),
    (3358, [ENTRY 1 True, SHIFT 6250]), (3360, [ENTRY 1 True, SHIFT 792]),
    (3362, [ENTRY 1 True, SHIFT 6287]), (3364, [ENTRY 1 True, SHIFT 414]),
    (3366, [ENTRY 1 True, SHIFT 5281]), (3368, [ENTRY 1 True, SHIFT 66])]"

definition parse_actions_11 :: "(nat \<times> TSParseActionEntry list) list" where "parse_actions_11 = [
    (3370, [ENTRY 1 True, SHIFT 6300]), (3372, [ENTRY 1 True, SHIFT 415]),
    (3374, [ENTRY 1 True, SHIFT 4298]), (3376, [ENTRY 1 True, SHIFT 18]),
    (3378, [ENTRY 1 True, SHIFT 6266]), (3380, [ENTRY 1 True, SHIFT 795]),
    (3382, [ENTRY 1 True, SHIFT 4899]), (3384, [ENTRY 1 True, SHIFT 189]),
    (3386, [ENTRY 1 True, SHIFT 6274]), (3388, [ENTRY 1 True, SHIFT 796]),
    (3390, [ENTRY 1 True, SHIFT 6324]), (3392, [ENTRY 1 True, SHIFT 417]),
    (3394, [ENTRY 1 True, SHIFT 4115]), (3396, [ENTRY 1 True, SHIFT 19]),
    (3398, [ENTRY 1 True, SHIFT 5297]), (3400, [ENTRY 1 True, SHIFT 68]),
    (3402, [ENTRY 1 True, SHIFT 4909]), (3404, [ENTRY 1 True, SHIFT 192]),
    (3406, [ENTRY 1 True, SHIFT 6283]), (3408, [ENTRY 1 True, SHIFT 799]),
    (3410, [ENTRY 1 True, SHIFT 6333]), (3412, [ENTRY 1 True, SHIFT 418]),
    (3414, [ENTRY 1 True, SHIFT 5306]), (3416, [ENTRY 1 True, SHIFT 69]),
    (3418, [ENTRY 1 True, SHIFT 6341]), (3420, [ENTRY 1 True, SHIFT 419]),
    (3422, [ENTRY 1 True, SHIFT 5084]), (3424, [ENTRY 1 True, SHIFT 20]),
    (3426, [ENTRY 1 True, SHIFT 6295]), (3428, [ENTRY 1 True, SHIFT 802]),
    (3430, [ENTRY 1 True, SHIFT 6346]), (3432, [ENTRY 1 True, SHIFT 420]),
    (3434, [ENTRY 1 True, SHIFT 4917]), (3436, [ENTRY 1 True, SHIFT 195]),
    (3438, [ENTRY 1 True, SHIFT 6304]), (3440, [ENTRY 1 True, SHIFT 804]),
    (3442, [ENTRY 1 True, SHIFT 5322]), (3444, [ENTRY 1 True, SHIFT 71]),
    (3446, [ENTRY 1 True, SHIFT 6359]), (3448, [ENTRY 1 True, SHIFT 422]),
    (3450, [ENTRY 1 True, SHIFT 4444]), (3452, [ENTRY 1 True, SHIFT 21]),
    (3454, [ENTRY 1 True, SHIFT 6310]), (3456, [ENTRY 1 True, SHIFT 806]),
    (3458, [ENTRY 1 True, SHIFT 5330]), (3460, [ENTRY 1 True, SHIFT 72]),
    (3462, [ENTRY 1 True, SHIFT 6313]), (3464, [ENTRY 1 True, SHIFT 807]),
    (3466, [ENTRY 1 True, SHIFT 6367]), (3468, [ENTRY 1 True, SHIFT 423]),
    (3470, [ENTRY 1 True, SHIFT 6316]), (3472, [ENTRY 1 True, SHIFT 808]),
    (3474, [ENTRY 1 True, SHIFT 6319]), (3476, [ENTRY 1 True, SHIFT 809]),
    (3478, [ENTRY 1 True, SHIFT 4928]), (3480, [ENTRY 1 True, SHIFT 197]),
    (3482, [ENTRY 1 True, SHIFT 6375]), (3484, [ENTRY 1 True, SHIFT 424]),
    (3486, [ENTRY 1 True, SHIFT 4932]), (3488, [ENTRY 1 True, SHIFT 198]),
    (3490, [ENTRY 1 True, SHIFT 6334]), (3492, [ENTRY 1 True, SHIFT 810]),
    (3494, [ENTRY 1 True, SHIFT 5341]), (3496, [ENTRY 1 True, SHIFT 73]),
    (3498, [ENTRY 1 True, SHIFT 6388]), (3500, [ENTRY 1 True, SHIFT 426]),
    (3502, [ENTRY 1 True, SHIFT 6343]), (3504, [ENTRY 1 True, SHIFT 811]),
    (3506, [ENTRY 1 True, SHIFT 4934]), (3508, [ENTRY 1 True, SHIFT 199]),
    (3510, [ENTRY 1 True, SHIFT 6348]), (3512, [ENTRY 1 True, SHIFT 812]),
    (3514, [ENTRY 1 True, SHIFT 4938]), (3516, [ENTRY 1 True, SHIFT 200]),
    (3518, [ENTRY 1 True, SHIFT 6411]), (3520, [ENTRY 1 True, SHIFT 429]),
    (3522, [ENTRY 1 True, SHIFT 6361]), (3524, [ENTRY 1 True, SHIFT 814]),
    (3526, [ENTRY 1 True, SHIFT 5361]), (3528, [ENTRY 1 True, SHIFT 74]),
    (3530, [ENTRY 1 True, SHIFT 6369]), (3532, [ENTRY 1 True, SHIFT 815]),
    (3534, [ENTRY 1 True, SHIFT 4945]), (3536, [ENTRY 1 True, SHIFT 202]),
    (3538, [ENTRY 1 True, SHIFT 6371]), (3540, [ENTRY 1 True, SHIFT 816]),
    (3542, [ENTRY 1 True, SHIFT 4947]), (3544, [ENTRY 1 True, SHIFT 203]),
    (3546, [ENTRY 1 True, SHIFT 6382]), (3548, [ENTRY 1 True, SHIFT 818]),
    (3550, [ENTRY 1 True, SHIFT 6448]), (3552, [ENTRY 1 True, SHIFT 431]),
    (3554, [ENTRY 1 True, SHIFT 4950]), (3556, [ENTRY 1 True, SHIFT 204]),
    (3558, [ENTRY 1 True, SHIFT 6392]), (3560, [ENTRY 1 True, SHIFT 821]),
    (3562, [ENTRY 1 True, SHIFT 4955]), (3564, [ENTRY 1 True, SHIFT 205]),
    (3566, [ENTRY 1 True, SHIFT 6457]), (3568, [ENTRY 1 True, SHIFT 432]),
    (3570, [ENTRY 1 True, SHIFT 4126]), (3572, [ENTRY 1 True, SHIFT 75]),
    (3574, [ENTRY 1 True, SHIFT 6402]), (3576, [ENTRY 1 True, SHIFT 823]),
    (3578, [ENTRY 1 True, SHIFT 5384]), (3580, [ENTRY 1 True, SHIFT 77]),
    (3582, [ENTRY 1 True, SHIFT 6404]), (3584, [ENTRY 1 True, SHIFT 824]),
    (3586, [ENTRY 1 True, SHIFT 6461]), (3588, [ENTRY 1 True, SHIFT 433]),
    (3590, [ENTRY 1 True, SHIFT 4964]), (3592, [ENTRY 1 True, SHIFT 207]),
    (3594, [ENTRY 1 True, SHIFT 6515]), (3596, [ENTRY 1 True, SHIFT 434]),
    (3598, [ENTRY 1 True, SHIFT 6414]), (3600, [ENTRY 1 True, SHIFT 826]),
    (3602, [ENTRY 1 True, SHIFT 4968]), (3604, [ENTRY 1 True, SHIFT 208]),
    (3606, [ENTRY 1 True, SHIFT 6421]), (3608, [ENTRY 1 True, SHIFT 829]),
    (3610, [ENTRY 1 True, SHIFT 6530]), (3612, [ENTRY 1 True, SHIFT 436]),
    (3614, [ENTRY 1 True, SHIFT 4973]), (3616, [ENTRY 1 True, SHIFT 209]),
    (3618, [ENTRY 1 True, SHIFT 6428]), (3620, [ENTRY 1 True, SHIFT 831]),
    (3622, [ENTRY 1 True, SHIFT 4978]), (3624, [ENTRY 1 True, SHIFT 210]),
    (3626, [ENTRY 1 True, SHIFT 6538]), (3628, [ENTRY 1 True, SHIFT 437]),
    (3630, [ENTRY 1 True, SHIFT 6438]), (3632, [ENTRY 1 True, SHIFT 834]),
    (3634, [ENTRY 1 True, SHIFT 6549]), (3636, [ENTRY 1 True, SHIFT 438]),
    (3638, [ENTRY 1 True, SHIFT 4986]), (3640, [ENTRY 1 True, SHIFT 211]),
    (3642, [ENTRY 1 True, SHIFT 6556]), (3644, [ENTRY 1 True, SHIFT 439]),
    (3646, [ENTRY 1 True, SHIFT 4989]), (3648, [ENTRY 1 True, SHIFT 212]),
    (3650, [ENTRY 1 True, SHIFT 6449]), (3652, [ENTRY 1 True, SHIFT 837]),
    (3654, [ENTRY 1 True, SHIFT 6574]), (3656, [ENTRY 1 True, SHIFT 441]),
    (3658, [ENTRY 1 True, SHIFT 5409]), (3660, [ENTRY 1 True, SHIFT 78]),
    (3662, [ENTRY 1 True, SHIFT 6466]), (3664, [ENTRY 1 True, SHIFT 838]),
    (3666, [ENTRY 1 True, SHIFT 6580]), (3668, [ENTRY 1 True, SHIFT 442])]"

definition parse_actions_12 :: "(nat \<times> TSParseActionEntry list) list" where "parse_actions_12 = [
    (3670, [ENTRY 1 True, SHIFT 4445]), (3672, [ENTRY 1 True, SHIFT 22]),
    (3674, [ENTRY 1 True, SHIFT 6470]), (3676, [ENTRY 1 True, SHIFT 839]),
    (3678, [ENTRY 1 True, SHIFT 6586]), (3680, [ENTRY 1 True, SHIFT 443]),
    (3682, [ENTRY 1 True, SHIFT 6472]), (3684, [ENTRY 1 True, SHIFT 840]),
    (3686, [ENTRY 1 True, SHIFT 5002]), (3688, [ENTRY 1 True, SHIFT 213]),
    (3690, [ENTRY 1 True, SHIFT 4468]), (3692, [ENTRY 1 True, SHIFT 23]),
    (3694, [ENTRY 1 True, SHIFT 6478]), (3696, [ENTRY 1 True, SHIFT 842]),
    (3698, [ENTRY 1 True, SHIFT 6599]), (3700, [ENTRY 1 True, SHIFT 445]),
    (3702, [ENTRY 1 True, SHIFT 6482]), (3704, [ENTRY 1 True, SHIFT 843]),
    (3706, [ENTRY 1 True, SHIFT 5439]), (3708, [ENTRY 1 True, SHIFT 81]),
    (3710, [ENTRY 1 True, SHIFT 6484]), (3712, [ENTRY 1 True, SHIFT 844]),
    (3714, [ENTRY 1 True, SHIFT 6617]), (3716, [ENTRY 1 True, SHIFT 448]),
    (3718, [ENTRY 1 True, SHIFT 5009]), (3720, [ENTRY 1 True, SHIFT 214]),
    (3722, [ENTRY 1 True, SHIFT 6490]), (3724, [ENTRY 1 True, SHIFT 846]),
    (3726, [ENTRY 1 True, SHIFT 5014]), (3728, [ENTRY 1 True, SHIFT 215]),
    (3730, [ENTRY 1 True, SHIFT 6496]), (3732, [ENTRY 1 True, SHIFT 849]),
    (3734, [ENTRY 1 True, SHIFT 5016]), (3736, [ENTRY 1 True, SHIFT 216]),
    (3738, [ENTRY 1 True, SHIFT 4531]), (3740, [ENTRY 1 True, SHIFT 24]),
    (3742, [ENTRY 1 True, SHIFT 6649]), (3744, [ENTRY 1 True, SHIFT 450]),
    (3746, [ENTRY 1 True, SHIFT 6503]), (3748, [ENTRY 1 True, SHIFT 851]),
    (3750, [ENTRY 1 True, SHIFT 5480]), (3752, [ENTRY 1 True, SHIFT 84]),
    (3754, [ENTRY 1 True, SHIFT 6505]), (3756, [ENTRY 1 True, SHIFT 852]),
    (3758, [ENTRY 1 True, SHIFT 5024]), (3760, [ENTRY 1 True, SHIFT 218]),
    (3762, [ENTRY 1 True, SHIFT 6512]), (3764, [ENTRY 1 True, SHIFT 854]),
    (3766, [ENTRY 1 True, SHIFT 6671]), (3768, [ENTRY 1 True, SHIFT 451]),
    (3770, [ENTRY 1 True, SHIFT 6519]), (3772, [ENTRY 1 True, SHIFT 857]),
    (3774, [ENTRY 1 True, SHIFT 6531]), (3776, [ENTRY 1 True, SHIFT 859]),
    (3778, [ENTRY 1 True, SHIFT 6684]), (3780, [ENTRY 1 True, SHIFT 452]),
    (3782, [ENTRY 1 True, SHIFT 6688]), (3784, [ENTRY 1 True, SHIFT 453]),
    (3786, [ENTRY 1 True, SHIFT 6543]), (3788, [ENTRY 1 True, SHIFT 862]),
    (3790, [ENTRY 1 True, SHIFT 5037]), (3792, [ENTRY 1 True, SHIFT 220]),
    (3794, [ENTRY 1 True, SHIFT 6691]), (3796, [ENTRY 1 True, SHIFT 454]),
    (3798, [ENTRY 1 True, SHIFT 5500]), (3800, [ENTRY 1 True, SHIFT 86]),
    (3802, [ENTRY 1 True, SHIFT 6560]), (3804, [ENTRY 1 True, SHIFT 865]),
    (3806, [ENTRY 1 True, SHIFT 6706]), (3808, [ENTRY 1 True, SHIFT 456]),
    (3810, [ENTRY 1 True, SHIFT 5045]), (3812, [ENTRY 1 True, SHIFT 222]),
    (3814, [ENTRY 1 True, SHIFT 5048]), (3816, [ENTRY 1 True, SHIFT 223]),
    (3818, [ENTRY 1 True, SHIFT 5523]), (3820, [ENTRY 1 True, SHIFT 88]),
    (3822, [ENTRY 1 True, SHIFT 6569]), (3824, [ENTRY 1 True, SHIFT 866]),
    (3826, [ENTRY 1 True, SHIFT 4311]), (3828, [ENTRY 1 True, SHIFT 224]),
    (3830, [ENTRY 1 True, SHIFT 5345]), (3832, [ENTRY 1 True, SHIFT 457]),
    (3834, [ENTRY 1 True, SHIFT 5051]), (3836, [ENTRY 1 True, SHIFT 225]),
    (3838, [ENTRY 1 True, SHIFT 6583]), (3840, [ENTRY 1 True, SHIFT 867]),
    (3842, [ENTRY 1 True, SHIFT 4307]), (3844, [ENTRY 1 True, SHIFT 25]),
    (3846, [ENTRY 1 True, SHIFT 5531]), (3848, [ENTRY 1 True, SHIFT 89]),
    (3850, [ENTRY 1 True, SHIFT 6594]), (3852, [ENTRY 1 True, SHIFT 868]),
    (3854, [ENTRY 1 True, SHIFT 5056]), (3856, [ENTRY 1 True, SHIFT 227]),
    (3858, [ENTRY 1 True, SHIFT 6601]), (3860, [ENTRY 1 True, SHIFT 869]),
    (3862, [ENTRY 1 True, SHIFT 4796]), (3864, [ENTRY 1 True, SHIFT 458]),
    (3866, [ENTRY 1 True, SHIFT 4303]), (3868, [ENTRY 1 True, SHIFT 26]),
    (3870, [ENTRY 1 True, SHIFT 5058]), (3872, [ENTRY 1 True, SHIFT 228]),
    (3874, [ENTRY 1 True, SHIFT 6610]), (3876, [ENTRY 1 True, SHIFT 871]),
    (3878, [ENTRY 1 True, SHIFT 5062]), (3880, [ENTRY 1 True, SHIFT 229]),
    (3882, [ENTRY 1 True, SHIFT 5593]), (3884, [ENTRY 1 True, SHIFT 459]),
    (3886, [ENTRY 1 True, SHIFT 6622]), (3888, [ENTRY 1 True, SHIFT 872]),
    (3890, [ENTRY 1 True, SHIFT 5066]), (3892, [ENTRY 1 True, SHIFT 230]),
    (3894, [ENTRY 1 True, SHIFT 6628]), (3896, [ENTRY 1 True, SHIFT 873]),
    (3898, [ENTRY 1 True, SHIFT 5599]), (3900, [ENTRY 1 True, SHIFT 460]),
    (3902, [ENTRY 1 True, SHIFT 6631]), (3904, [ENTRY 1 True, SHIFT 874]),
    (3906, [ENTRY 1 True, SHIFT 4451]), (3908, [ENTRY 1 True, SHIFT 461]),
    (3910, [ENTRY 1 True, SHIFT 5539]), (3912, [ENTRY 1 True, SHIFT 90]),
    (3914, [ENTRY 1 True, SHIFT 6643]), (3916, [ENTRY 1 True, SHIFT 876]),
    (3918, [ENTRY 1 True, SHIFT 5072]), (3920, [ENTRY 1 True, SHIFT 232]),
    (3922, [ENTRY 1 True, SHIFT 6648]), (3924, [ENTRY 1 True, SHIFT 877]),
    (3926, [ENTRY 1 True, SHIFT 4471]), (3928, [ENTRY 1 True, SHIFT 919]),
    (3930, [ENTRY 1 True, SHIFT 6653]), (3932, [ENTRY 1 True, SHIFT 878]),
    (3934, [ENTRY 1 True, SHIFT 5552]), (3936, [ENTRY 1 True, SHIFT 91]),
    (3938, [ENTRY 1 True, SHIFT 5075]), (3940, [ENTRY 1 True, SHIFT 233]),
    (3942, [ENTRY 1 True, SHIFT 6661]), (3944, [ENTRY 1 True, SHIFT 880]),
    (3946, [ENTRY 1 True, SHIFT 5078]), (3948, [ENTRY 1 True, SHIFT 234]),
    (3950, [ENTRY 1 True, SHIFT 5081]), (3952, [ENTRY 1 True, SHIFT 235]),
    (3954, [ENTRY 1 True, SHIFT 6670]), (3956, [ENTRY 1 True, SHIFT 883]),
    (3958, [ENTRY 1 True, SHIFT 4501]), (3960, [ENTRY 1 True, SHIFT 463]),
    (3962, [ENTRY 1 True, SHIFT 5089]), (3964, [ENTRY 1 True, SHIFT 236]),
    (3966, [ENTRY 1 True, SHIFT 5091]), (3968, [ENTRY 1 True, SHIFT 237])]"

definition parse_actions_13 :: "(nat \<times> TSParseActionEntry list) list" where "parse_actions_13 = [
    (3970, [ENTRY 1 True, SHIFT 6699]), (3972, [ENTRY 1 True, SHIFT 885]),
    (3974, [ENTRY 1 True, SHIFT 4568]), (3976, [ENTRY 1 True, SHIFT 464]),
    (3978, [ENTRY 1 True, SHIFT 6714]), (3980, [ENTRY 1 True, SHIFT 886]),
    (3982, [ENTRY 1 True, SHIFT 4312]), (3984, [ENTRY 1 True, SHIFT 887]),
    (3986, [ENTRY 1 True, SHIFT 5102]), (3988, [ENTRY 1 True, SHIFT 238]),
    (3990, [ENTRY 1 True, SHIFT 4314]), (3992, [ENTRY 1 True, SHIFT 888]),
    (3994, [ENTRY 1 True, SHIFT 4320]), (3996, [ENTRY 1 True, SHIFT 890]),
    (3998, [ENTRY 1 True, SHIFT 4325]), (4000, [ENTRY 1 True, SHIFT 891]),
    (4002, [ENTRY 1 True, SHIFT 4329]), (4004, [ENTRY 1 True, SHIFT 892]),
    (4006, [ENTRY 1 True, SHIFT 4331]), (4008, [ENTRY 1 True, SHIFT 893]),
    (4010, [ENTRY 1 True, SHIFT 4337]), (4012, [ENTRY 1 True, SHIFT 895]),
    (4014, [ENTRY 1 True, SHIFT 4341]), (4016, [ENTRY 1 True, SHIFT 896]),
    (4018, [ENTRY 1 True, SHIFT 4343]), (4020, [ENTRY 1 True, SHIFT 897]),
    (4022, [ENTRY 1 True, SHIFT 4349]), (4024, [ENTRY 1 True, SHIFT 899]),
    (4026, [ENTRY 1 True, SHIFT 4355]), (4028, [ENTRY 1 True, SHIFT 902]),
    (4030, [ENTRY 1 True, SHIFT 4365]), (4032, [ENTRY 1 True, SHIFT 904]),
    (4034, [ENTRY 1 True, SHIFT 4372]), (4036, [ENTRY 1 True, SHIFT 905]),
    (4038, [ENTRY 1 True, SHIFT 4378]), (4040, [ENTRY 1 True, SHIFT 906]),
    (4042, [ENTRY 1 True, SHIFT 4382]), (4044, [ENTRY 1 True, SHIFT 907]),
    (4046, [ENTRY 1 True, SHIFT 4384]), (4048, [ENTRY 1 True, SHIFT 908]),
    (4050, [ENTRY 1 True, SHIFT 4390]), (4052, [ENTRY 1 True, SHIFT 910]),
    (4054, [ENTRY 1 True, SHIFT 4397]), (4056, [ENTRY 1 True, SHIFT 911]),
    (4058, [ENTRY 1 True, SHIFT 4404]), (4060, [ENTRY 1 True, SHIFT 912]),
    (4062, [ENTRY 1 True, SHIFT 4410]), (4064, [ENTRY 1 True, SHIFT 913]),
    (4066, [ENTRY 1 True, SHIFT 4414]), (4068, [ENTRY 1 True, SHIFT 914]),
    (4070, [ENTRY 1 True, SHIFT 4416]), (4072, [ENTRY 1 True, SHIFT 915]),
    (4074, [ENTRY 1 True, SHIFT 4422]), (4076, [ENTRY 1 True, SHIFT 917]),
    (4078, [ENTRY 1 True, SHIFT 4430]), (4080, [ENTRY 1 True, SHIFT 918]),
    (4082, [ENTRY 1 True, SHIFT 4439]), (4084, [ENTRY 1 True, SHIFT 3]),
    (4086, [ENTRY 1 True, SHIFT 9712]), (4088, [ENTRY 1 True, SHIFT 523]),
    (4090, [ENTRY 1 True, SHIFT 4509]), (4092, [ENTRY 1 True, SHIFT 475]),
    (4094, [ENTRY 1 False, SHIFT 7089]),
    (4096, [ENTRY 2 False, REDUCE sym_primary_expression 1 0 1, SHIFT 6924]),
    (4099, [ENTRY 1 True, SHIFT 4227]), (4101, [ENTRY 1 True, SHIFT 4005]),
    (4103, [ENTRY 1 True, SHIFT 11920]), (4105, [ENTRY 1 True, SHIFT 12212]),
    (4107, [ENTRY 1 True, SHIFT 4034]), (4109, [ENTRY 1 True, SHIFT 4010]),
    (4111, [ENTRY 1 True, SHIFT 12305]), (4113, [ENTRY 1 True, SHIFT 4140]),
    (4115, [ENTRY 1 True, SHIFT 12312]), (4117, [ENTRY 1 True, SHIFT 4012]),
    (4119, [ENTRY 1 True, SHIFT 4175]), (4121, [ENTRY 1 True, SHIFT 4186]),
    (4123, [ENTRY 1 True, REDUCE sym_list_splat_pattern 2 0 5]),
    (4125, [ENTRY 2 False, REDUCE sym_primary_expression 1 0 1, REDUCE sym_list_splat_pattern 2 0 5]),
    (4128, [ENTRY 1 True, SHIFT 3799]), (4130, [ENTRY 1 False, SHIFT 6924]),
    (4132, [ENTRY 1 False, SHIFT 7165]), (4134, [ENTRY 1 False, SHIFT 7166]),
    (4136, [ENTRY 1 True, SHIFT 3800]),
    (4138, [ENTRY 1 False, REDUCE sym_list_splat_pattern 2 0 5]),
    (4140, [ENTRY 1 False, SHIFT 6926]),
    (4142, [ENTRY 2 True, REDUCE sym_primary_expression 1 0 1, REDUCE sym_list_splat_pattern 2 0 5]),
    (4145, [ENTRY 1 False, SHIFT 2019]), (4147, [ENTRY 1 True, SHIFT 3764]),
    (4149, [ENTRY 1 False, SHIFT 6925]), (4151, [ENTRY 1 False, SHIFT 6967]),
    (4153, [ENTRY 1 False, SHIFT 7015]), (4155, [ENTRY 1 True, SHIFT 3765]),
    (4157, [ENTRY 1 False, SHIFT 6830]), (4159, [ENTRY 1 False, SHIFT 1996]),
    (4161, [ENTRY 1 False, SHIFT 7149]), (4163, [ENTRY 1 True, SHIFT 3756]),
    (4165, [ENTRY 1 False, SHIFT 6837]), (4167, [ENTRY 1 False, SHIFT 7155]),
    (4169, [ENTRY 1 False, SHIFT 12449]), (4171, [ENTRY 1 False, SHIFT 7157]),
    (4173, [ENTRY 1 True, SHIFT 3763]), (4175, [ENTRY 1 True, SHIFT 3634]),
    (4177, [ENTRY 1 False, SHIFT 6932]), (4179, [ENTRY 1 True, SHIFT 6932]),
    (4181, [ENTRY 1 True, SHIFT 7149]), (4183, [ENTRY 1 False, SHIFT 12369]),
    (4185, [ENTRY 1 False, SHIFT 1881]), (4187, [ENTRY 1 True, SHIFT 9603]),
    (4189, [ENTRY 1 False, SHIFT 7013]),
    (4191, [ENTRY 1 False, REDUCE aux_sym__function_effects 1 0 0]),
    (4193, [ENTRY 1 True, REDUCE aux_sym__function_effects 1 0 0]),
    (4195, [ENTRY 1 False, SHIFT 3232]), (4197, [ENTRY 1 False, SHIFT 7090]),
    (4199, [ENTRY 1 False, SHIFT 7094]),
    (4201, [ENTRY 2 True, REDUCE aux_sym__function_effects 1 0 0, SHIFT_REPEAT 3634]),
    (4204, [ENTRY 1 False, SHIFT 7009]), (4206, [ENTRY 1 False, SHIFT 4154]),
    (4208, [ENTRY 1 False, SHIFT 7831]), (4210, [ENTRY 1 False, SHIFT 1865]),
    (4212, [ENTRY 1 False, SHIFT 6869]), (4214, [ENTRY 1 True, SHIFT 6869]),
    (4216, [ENTRY 1 False, SHIFT 1887]), (4218, [ENTRY 1 False, SHIFT 7067]),
    (4220, [ENTRY 1 False, SHIFT 3230]),
    (4222, [ENTRY 2 True, REDUCE aux_sym__function_effects 1 0 0, SHIFT_REPEAT 3629]),
    (4225, [ENTRY 1 False, SHIFT 7077]), (4227, [ENTRY 1 False, SHIFT 6893]),
    (4229, [ENTRY 1 True, SHIFT 6893]), (4231, [ENTRY 1 False, SHIFT 4111]),
    (4233, [ENTRY 1 False, SHIFT 7827]), (4235, [ENTRY 1 False, SHIFT 1878]),
    (4237, [ENTRY 1 False, SHIFT 7111]), (4239, [ENTRY 1 True, SHIFT 3750]),
    (4241, [ENTRY 1 False, SHIFT 3234]), (4243, [ENTRY 1 False, SHIFT 7083]),
    (4245, [ENTRY 1 False, SHIFT 12395]), (4247, [ENTRY 1 False, SHIFT 7076]),
    (4249, [ENTRY 1 True, SHIFT 3785]),
    (4251, [ENTRY 2 True, REDUCE aux_sym__function_effects 1 0 0, SHIFT_REPEAT 3633]),
    (4254, [ENTRY 1 False, SHIFT 7079]), (4256, [ENTRY 1 False, SHIFT 6890]),
    (4258, [ENTRY 1 True, SHIFT 6890]), (4260, [ENTRY 1 False, SHIFT 4098]),
    (4262, [ENTRY 1 False, SHIFT 7838]), (4264, [ENTRY 1 True, SHIFT 7294]),
    (4266, [ENTRY 1 False, SHIFT 12357]), (4268, [ENTRY 1 False, SHIFT 7294]),
    (4270, [ENTRY 1 False, SHIFT 1879]), (4272, [ENTRY 1 True, SHIFT 9583]),
    (4274, [ENTRY 1 False, REDUCE sym_transfer_expression 2 0 7])]"

definition parse_actions_14 :: "(nat \<times> TSParseActionEntry list) list" where "parse_actions_14 = [
    (4276, [ENTRY 1 True, REDUCE sym_transfer_expression 2 0 7]),
    (4278, [ENTRY 1 False, SHIFT 1884]), (4280, [ENTRY 1 False, SHIFT 6818]),
    (4282, [ENTRY 1 False, SHIFT 7115]), (4284, [ENTRY 1 False, SHIFT 7116]),
    (4286, [ENTRY 1 True, SHIFT 3633]), (4288, [ENTRY 1 False, SHIFT 1886]),
    (4290, [ENTRY 1 False, SHIFT 3220]),
    (4292, [ENTRY 2 True, REDUCE aux_sym__function_effects 1 0 0, SHIFT_REPEAT 3635]),
    (4295, [ENTRY 1 False, SHIFT 4090]), (4297, [ENTRY 1 False, SHIFT 7834]),
    (4299, [ENTRY 1 False, SHIFT 1870]), (4301, [ENTRY 1 False, SHIFT 7354]),
    (4303, [ENTRY 1 True, SHIFT 3811]), (4305, [ENTRY 1 False, SHIFT 2420]),
    (4307, [ENTRY 1 False, SHIFT 7381]), (4309, [ENTRY 1 False, SHIFT 12375]),
    (4311, [ENTRY 1 False, SHIFT 7416]), (4313, [ENTRY 1 False, SHIFT 11976]),
    (4315, [ENTRY 1 True, SHIFT 3807]), (4317, [ENTRY 1 True, SHIFT 7784]),
    (4319, [ENTRY 1 True, SHIFT 3630]), (4321, [ENTRY 1 True, SHIFT 3209]),
    (4323, [ENTRY 1 False, SHIFT 7358]), (4325, [ENTRY 1 False, SHIFT 7353]),
    (4327, [ENTRY 1 True, SHIFT 12406]), (4329, [ENTRY 1 True, SHIFT 6835]),
    (4331, [ENTRY 1 False, SHIFT 4262]), (4333, [ENTRY 1 False, SHIFT 12327]),
    (4335, [ENTRY 1 False, SHIFT 7841]), (4337, [ENTRY 1 False, SHIFT 3860]),
    (4339, [ENTRY 1 True, SHIFT 7474]), (4341, [ENTRY 1 False, SHIFT 12320]),
    (4343, [ENTRY 1 False, SHIFT 7474]), (4345, [ENTRY 1 False, SHIFT 1994]),
    (4347, [ENTRY 1 True, SHIFT 9561]), (4349, [ENTRY 1 True, SHIFT 9531]),
    (4351, [ENTRY 1 False, SHIFT 3208]), (4353, [ENTRY 1 False, SHIFT 11980]),
    (4355, [ENTRY 1 True, SHIFT 3221]), (4357, [ENTRY 1 False, SHIFT 5296]),
    (4359, [ENTRY 1 True, SHIFT 6846]), (4361, [ENTRY 1 False, SHIFT 7878]),
    (4363, [ENTRY 1 False, SHIFT 7882]), (4365, [ENTRY 1 False, SHIFT 4274]),
    (4367, [ENTRY 1 False, SHIFT 7832]), (4369, [ENTRY 1 False, SHIFT 2003]),
    (4371, [ENTRY 1 True, SHIFT 8398]), (4373, [ENTRY 1 True, SHIFT 8264]),
    (4375, [ENTRY 1 True, SHIFT 8285]), (4377, [ENTRY 1 True, SHIFT 8291]),
    (4379, [ENTRY 1 True, SHIFT 8358]), (4381, [ENTRY 1 True, SHIFT 8321]),
    (4383, [ENTRY 1 True, SHIFT 8345]), (4385, [ENTRY 1 True, SHIFT 8488]),
    (4387, [ENTRY 1 True, SHIFT 8350]), (4389, [ENTRY 1 True, SHIFT 8355]),
    (4391, [ENTRY 1 True, SHIFT 8314]), (4393, [ENTRY 1 True, SHIFT 8215]),
    (4395, [ENTRY 1 True, SHIFT 8221]), (4397, [ENTRY 1 True, SHIFT 8224]),
    (4399, [ENTRY 1 True, SHIFT 8360]), (4401, [ENTRY 1 True, SHIFT 8213]),
    (4403, [ENTRY 1 True, SHIFT 8366]), (4405, [ENTRY 1 True, SHIFT 8230]),
    (4407, [ENTRY 1 True, SHIFT 9487]), (4409, [ENTRY 1 True, SHIFT 9501]),
    (4411, [ENTRY 1 True, SHIFT 9510]), (4413, [ENTRY 1 True, SHIFT 9515]),
    (4415, [ENTRY 1 True, SHIFT 9519]), (4417, [ENTRY 1 True, SHIFT 9522]),
    (4419, [ENTRY 1 True, SHIFT 9526]), (4421, [ENTRY 1 True, SHIFT 9536]),
    (4423, [ENTRY 1 True, SHIFT 9540]), (4425, [ENTRY 1 True, SHIFT 9492]),
    (4427, [ENTRY 1 True, SHIFT 9463]), (4429, [ENTRY 1 True, SHIFT 9506]),
    (4431, [ENTRY 1 True, SHIFT 9470]), (4433, [ENTRY 1 True, SHIFT 9478]),
    (4435, [ENTRY 1 True, SHIFT 9493]), (4437, [ENTRY 1 True, SHIFT 9462]),
    (4439, [ENTRY 1 True, SHIFT 9545]), (4441, [ENTRY 1 True, SHIFT 9475]),
    (4443, [ENTRY 1 True, SHIFT 9532]), (4445, [ENTRY 1 True, SHIFT 8098]),
    (4447, [ENTRY 1 True, SHIFT 8108]), (4449, [ENTRY 1 True, SHIFT 8113]),
    (4451, [ENTRY 1 True, SHIFT 8161]), (4453, [ENTRY 1 True, SHIFT 8171]),
    (4455, [ENTRY 1 True, SHIFT 8175]), (4457, [ENTRY 1 True, SHIFT 8179]),
    (4459, [ENTRY 1 True, SHIFT 8186]), (4461, [ENTRY 1 True, SHIFT 8193]),
    (4463, [ENTRY 1 True, SHIFT 8063]), (4465, [ENTRY 1 True, SHIFT 8231]),
    (4467, [ENTRY 1 True, SHIFT 8241]), (4469, [ENTRY 1 True, SHIFT 8259]),
    (4471, [ENTRY 1 True, SHIFT 8269]), (4473, [ENTRY 1 True, SHIFT 8274]),
    (4475, [ENTRY 1 True, SHIFT 8278]), (4477, [ENTRY 1 True, SHIFT 8284]),
    (4479, [ENTRY 1 True, SHIFT 8293]), (4481, [ENTRY 1 True, SHIFT 8297]),
    (4483, [ENTRY 1 True, SHIFT 8302]), (4485, [ENTRY 1 True, SHIFT 8327]),
    (4487, [ENTRY 1 True, SHIFT 8204]), (4489, [ENTRY 1 True, SHIFT 8115]),
    (4491, [ENTRY 1 True, SHIFT 8118]), (4493, [ENTRY 1 True, SHIFT 8121]),
    (4495, [ENTRY 1 True, SHIFT 8126]), (4497, [ENTRY 1 True, SHIFT 8130]),
    (4499, [ENTRY 1 True, SHIFT 8195]), (4501, [ENTRY 1 True, SHIFT 8137]),
    (4503, [ENTRY 1 True, SHIFT 8140]), (4505, [ENTRY 1 True, SHIFT 8144]),
    (4507, [ENTRY 1 True, SHIFT 8148]), (4509, [ENTRY 1 True, SHIFT 8280]),
    (4511, [ENTRY 1 True, SHIFT 8407]), (4513, [ENTRY 1 True, SHIFT 8410]),
    (4515, [ENTRY 1 True, SHIFT 8413]), (4517, [ENTRY 1 True, SHIFT 8418]),
    (4519, [ENTRY 1 True, SHIFT 8422]), (4521, [ENTRY 1 True, SHIFT 8425]),
    (4523, [ENTRY 1 True, SHIFT 8429]), (4525, [ENTRY 1 True, SHIFT 8432]),
    (4527, [ENTRY 1 True, SHIFT 8436]), (4529, [ENTRY 1 True, SHIFT 8440]),
    (4531, [ENTRY 1 True, SHIFT 8443]), (4533, [ENTRY 1 True, SHIFT 8446]),
    (4535, [ENTRY 1 True, SHIFT 8449]), (4537, [ENTRY 1 True, SHIFT 8454]),
    (4539, [ENTRY 1 True, SHIFT 8458]), (4541, [ENTRY 1 True, SHIFT 8461]),
    (4543, [ENTRY 1 True, SHIFT 8465]), (4545, [ENTRY 1 True, SHIFT 8468]),
    (4547, [ENTRY 1 True, SHIFT 8472]), (4549, [ENTRY 1 True, SHIFT 8476]),
    (4551, [ENTRY 1 True, SHIFT 8368]), (4553, [ENTRY 1 True, SHIFT 8371]),
    (4555, [ENTRY 1 True, SHIFT 8374]), (4557, [ENTRY 1 True, SHIFT 8380]),
    (4559, [ENTRY 1 True, SHIFT 8384]), (4561, [ENTRY 1 True, SHIFT 8387]),
    (4563, [ENTRY 1 True, SHIFT 8391]), (4565, [ENTRY 1 True, SHIFT 8394]),
    (4567, [ENTRY 1 True, SHIFT 8402]), (4569, [ENTRY 1 True, SHIFT 6854]),
    (4571, [ENTRY 1 False, SHIFT 2014]), (4573, [ENTRY 1 True, SHIFT 3806]),
    (4575, [ENTRY 1 False, SHIFT 6853])]"

definition parse_actions_15 :: "(nat \<times> TSParseActionEntry list) list" where "parse_actions_15 = [
    (4577, [ENTRY 1 False, SHIFT 7516]), (4579, [ENTRY 1 False, SHIFT 7520]),
    (4581, [ENTRY 1 False, SHIFT 2000]), (4583, [ENTRY 1 False, SHIFT 7645]),
    (4585, [ENTRY 1 True, SHIFT 3794]), (4587, [ENTRY 1 False, SHIFT 6868]),
    (4589, [ENTRY 1 False, SHIFT 7568]), (4591, [ENTRY 1 False, SHIFT 12376]),
    (4593, [ENTRY 1 False, SHIFT 7569]), (4595, [ENTRY 1 True, SHIFT 3810]),
    (4597, [ENTRY 1 True, SHIFT 3631]), (4599, [ENTRY 1 False, SHIFT 4267]),
    (4601, [ENTRY 1 True, SHIFT 6827]), (4603, [ENTRY 1 True, SHIFT 7645]),
    (4605, [ENTRY 1 False, SHIFT 12339]), (4607, [ENTRY 1 False, SHIFT 2044]),
    (4609, [ENTRY 1 True, SHIFT 9612]), (4611, [ENTRY 1 False, SHIFT 7651]),
    (4613, [ENTRY 1 True, SHIFT 3762]), (4615, [ENTRY 1 False, SHIFT 6829]),
    (4617, [ENTRY 1 False, SHIFT 7665]), (4619, [ENTRY 1 False, SHIFT 12412]),
    (4621, [ENTRY 1 False, SHIFT 7666]), (4623, [ENTRY 1 True, SHIFT 3795]),
    (4625, [ENTRY 1 True, SHIFT 3632]), (4627, [ENTRY 1 True, SHIFT 6832]),
    (4629, [ENTRY 1 True, SHIFT 7651]), (4631, [ENTRY 1 False, SHIFT 12350]),
    (4633, [ENTRY 1 False, SHIFT 2017]), (4635, [ENTRY 1 True, SHIFT 9610]),
    (4637, [ENTRY 1 False, SHIFT 2015]), (4639, [ENTRY 1 False, SHIFT 7743]),
    (4641, [ENTRY 1 True, SHIFT 3784]), (4643, [ENTRY 1 False, SHIFT 6831]),
    (4645, [ENTRY 1 False, SHIFT 7720]), (4647, [ENTRY 1 False, SHIFT 12391]),
    (4649, [ENTRY 1 False, SHIFT 7723]), (4651, [ENTRY 1 True, SHIFT 3757]),
    (4653, [ENTRY 1 True, SHIFT 3636]), (4655, [ENTRY 1 False, SHIFT 4131]),
    (4657, [ENTRY 1 True, SHIFT 6931]), (4659, [ENTRY 1 True, SHIFT 7743]),
    (4661, [ENTRY 1 False, SHIFT 12290]), (4663, [ENTRY 1 False, SHIFT 2104]),
    (4665, [ENTRY 1 True, SHIFT 9598]), (4667, [ENTRY 1 False, SHIFT 3965]),
    (4669, [ENTRY 1 False, SHIFT 2294]), (4671, [ENTRY 1 True, SHIFT 8534]),
    (4673, [ENTRY 1 False, SHIFT 7549]), (4675, [ENTRY 1 False, SHIFT 4103]),
    (4677, [ENTRY 1 False, SHIFT 7842]), (4679, [ENTRY 1 False, SHIFT 1999]),
    (4681, [ENTRY 1 True, SHIFT 8594]), (4683, [ENTRY 1 True, SHIFT 8597]),
    (4685, [ENTRY 1 True, SHIFT 8544]), (4687, [ENTRY 1 True, SHIFT 8614]),
    (4689, [ENTRY 1 True, SHIFT 8554]), (4691, [ENTRY 1 True, SHIFT 8495]),
    (4693, [ENTRY 1 True, SHIFT 8574]), (4695, [ENTRY 1 True, SHIFT 8579]),
    (4697, [ENTRY 1 True, SHIFT 8581]), (4699, [ENTRY 1 True, SHIFT 8584]),
    (4701, [ENTRY 1 True, SHIFT 8590]), (4703, [ENTRY 1 True, SHIFT 8510]),
    (4705, [ENTRY 1 True, SHIFT 8560]), (4707, [ENTRY 1 True, SHIFT 8600]),
    (4709, [ENTRY 1 False, SHIFT 7508]), (4711, [ENTRY 1 True, SHIFT 8575]),
    (4713, [ENTRY 1 True, SHIFT 8577]), (4715, [ENTRY 1 True, SHIFT 8562]),
    (4717, [ENTRY 1 True, SHIFT 8615]), (4719, [ENTRY 1 True, SHIFT 8526]),
    (4721, [ENTRY 1 True, SHIFT 8540]), (4723, [ENTRY 1 False, SHIFT 7452]),
    (4725, [ENTRY 1 True, SHIFT 8528]), (4727, [ENTRY 1 True, SHIFT 8493]),
    (4729, [ENTRY 1 True, SHIFT 8234]), (4731, [ENTRY 1 False, SHIFT 7514]),
    (4733, [ENTRY 1 True, SHIFT 8550]), (4735, [ENTRY 1 True, SHIFT 8570]),
    (4737, [ENTRY 1 True, SHIFT 8299]), (4739, [ENTRY 1 True, SHIFT 8305]),
    (4741, [ENTRY 1 True, SHIFT 8549]), (4743, [ENTRY 1 True, SHIFT 8505]),
    (4745, [ENTRY 1 True, SHIFT 8520]), (4747, [ENTRY 1 True, SHIFT 8331]),
    (4749, [ENTRY 1 True, SHIFT 8523]), (4751, [ENTRY 1 True, SHIFT 8332]),
    (4753, [ENTRY 1 True, SHIFT 8334]), (4755, [ENTRY 1 True, SHIFT 8336]),
    (4757, [ENTRY 1 True, SHIFT 8599]), (4759, [ENTRY 1 True, SHIFT 8601]),
    (4761, [ENTRY 1 True, SHIFT 8593]), (4763, [ENTRY 1 True, SHIFT 8489]),
    (4765, [ENTRY 1 True, SHIFT 8342]), (4767, [ENTRY 1 True, SHIFT 8344]),
    (4769, [ENTRY 1 True, SHIFT 8586]), (4771, [ENTRY 1 True, SHIFT 8482]),
    (4773, [ENTRY 1 True, SHIFT 8483]), (4775, [ENTRY 1 True, SHIFT 8484]),
    (4777, [ENTRY 1 True, SHIFT 8518]), (4779, [ENTRY 1 True, SHIFT 8486]),
    (4781, [ENTRY 1 True, SHIFT 8573]), (4783, [ENTRY 1 True, SHIFT 8206]),
    (4785, [ENTRY 1 True, SHIFT 8208]), (4787, [ENTRY 1 True, SHIFT 8211]),
    (4789, [ENTRY 1 True, SHIFT 8515]), (4791, [ENTRY 1 True, SHIFT 8497]),
    (4793, [ENTRY 1 False, SHIFT 7521]), (4795, [ENTRY 1 True, SHIFT 8491]),
    (4797, [ENTRY 1 True, SHIFT 8516]), (4799, [ENTRY 1 False, SHIFT 4277]),
    (4801, [ENTRY 1 True, SHIFT 8605]), (4803, [ENTRY 1 True, SHIFT 8607]),
    (4805, [ENTRY 1 True, SHIFT 8507]), (4807, [ENTRY 1 True, SHIFT 8531]),
    (4809, [ENTRY 1 True, SHIFT 8532]), (4811, [ENTRY 1 True, SHIFT 8537]),
    (4813, [ENTRY 1 True, SHIFT 8508]), (4815, [ENTRY 1 True, SHIFT 8602]),
    (4817, [ENTRY 1 True, SHIFT 8559]), (4819, [ENTRY 1 True, SHIFT 8551]),
    (4821, [ENTRY 1 True, SHIFT 8490]), (4823, [ENTRY 1 True, SHIFT 8555]),
    (4825, [ENTRY 1 True, SHIFT 8557]), (4827, [ENTRY 1 True, SHIFT 8604]),
    (4829, [ENTRY 1 True, SHIFT 8592]), (4831, [ENTRY 1 True, SHIFT 8338]),
    (4833, [ENTRY 1 False, SHIFT 2856]), (4835, [ENTRY 1 False, SHIFT 12549]),
    (4837, [ENTRY 1 False, SHIFT 4231]), (4839, [ENTRY 1 False, SHIFT 6735]),
    (4841, [ENTRY 1 False, SHIFT 11955]), (4843, [ENTRY 1 False, SHIFT 3099]),
    (4845, [ENTRY 1 False, SHIFT 12053]), (4847, [ENTRY 1 True, SHIFT 3100]),
    (4849, [ENTRY 1 False, SHIFT 3226]), (4851, [ENTRY 1 False, SHIFT 7060]),
    (4853, [ENTRY 1 True, REDUCE sym_keyword_separator 1 0 0]),
    (4855, [ENTRY 1 False, SHIFT 7068]), (4857, [ENTRY 1 False, SHIFT 7075]),
    (4859, [ENTRY 1 False, SHIFT 7059]), (4861, [ENTRY 1 False, SHIFT 1866]),
    (4863, [ENTRY 1 False, SHIFT 7356]), (4865, [ENTRY 1 False, SHIFT 7414]),
    (4867, [ENTRY 1 False, SHIFT 7422]), (4869, [ENTRY 1 False, SHIFT 7357]),
    (4871, [ENTRY 1 False, SHIFT 1993]), (4873, [ENTRY 1 False, SHIFT 12278]),
    (4875, [ENTRY 1 False, SHIFT 12248])]"

definition parse_actions_16 :: "(nat \<times> TSParseActionEntry list) list" where "parse_actions_16 = [
    (4877, [ENTRY 1 False, SHIFT 11985]), (4879, [ENTRY 1 False, SHIFT 12251]),
    (4881, [ENTRY 1 False, SHIFT 7596]), (4883, [ENTRY 1 True, SHIFT 3791]),
    (4885, [ENTRY 1 True, SHIFT 12750]), (4887, [ENTRY 1 False, SHIFT 4264]),
    (4889, [ENTRY 1 False, SHIFT 7582]), (4891, [ENTRY 1 True, SHIFT 3899]),
    (4893, [ENTRY 1 False, SHIFT 7587]), (4895, [ENTRY 1 False, SHIFT 11970]),
    (4897, [ENTRY 1 True, SHIFT 7605]), (4899, [ENTRY 1 True, SHIFT 4236]),
    (4901, [ENTRY 1 False, SHIFT 7538]), (4903, [ENTRY 1 False, SHIFT 4067]),
    (4905, [ENTRY 1 False, SHIFT 2021]), (4907, [ENTRY 1 True, SHIFT 7183]),
    (4909, [ENTRY 1 False, SHIFT 7527]), (4911, [ENTRY 1 True, SHIFT 7232]),
    (4913, [ENTRY 1 False, SHIFT 7530]), (4915, [ENTRY 1 True, SHIFT 7795]),
    (4917, [ENTRY 1 False, SHIFT 7541]), (4919, [ENTRY 1 True, SHIFT 6799]),
    (4921, [ENTRY 1 False, SHIFT 7545]), (4923, [ENTRY 1 True, SHIFT 7481]),
    (4925, [ENTRY 1 False, SHIFT 7543]), (4927, [ENTRY 1 True, SHIFT 7303]),
    (4929, [ENTRY 1 False, SHIFT 7551]), (4931, [ENTRY 1 True, SHIFT 6993]),
    (4933, [ENTRY 1 False, SHIFT 7529]), (4935, [ENTRY 1 True, SHIFT 7614]),
    (4937, [ENTRY 1 False, SHIFT 7523]), (4939, [ENTRY 1 True, SHIFT 7428]),
    (4941, [ENTRY 1 False, SHIFT 7535]), (4943, [ENTRY 1 False, SHIFT 7087]),
    (4945, [ENTRY 1 False, SHIFT 7286]), (4947, [ENTRY 1 False, SHIFT 7292]),
    (4949, [ENTRY 1 False, SHIFT 7086]), (4951, [ENTRY 1 False, SHIFT 1874]),
    (4953, [ENTRY 1 False, SHIFT 7070]), (4955, [ENTRY 1 False, SHIFT 7109]),
    (4957, [ENTRY 1 False, SHIFT 7269]), (4959, [ENTRY 1 False, SHIFT 7276]),
    (4961, [ENTRY 1 False, SHIFT 7101]), (4963, [ENTRY 1 False, SHIFT 1871]),
    (4965, [ENTRY 1 False, SHIFT 7110]), (4967, [ENTRY 1 False, SHIFT 7782]),
    (4969, [ENTRY 1 True, SHIFT 7604]), (4971, [ENTRY 1 False, SHIFT 7646]),
    (4973, [ENTRY 1 False, SHIFT 4106]), (4975, [ENTRY 1 True, SHIFT 6782]),
    (4977, [ENTRY 1 False, SHIFT 7071]), (4979, [ENTRY 1 False, SHIFT 7262]),
    (4981, [ENTRY 1 False, SHIFT 7263]), (4983, [ENTRY 1 False, SHIFT 7069]),
    (4985, [ENTRY 1 False, SHIFT 1872]), (4987, [ENTRY 1 False, SHIFT 7063]),
    (4989, [ENTRY 1 False, SHIFT 7788]), (4991, [ENTRY 1 True, SHIFT 7049]),
    (4993, [ENTRY 1 False, SHIFT 7100]), (4995, [ENTRY 1 False, SHIFT 7073]),
    (4997, [ENTRY 1 False, SHIFT 7779]), (4999, [ENTRY 1 True, SHIFT 7267]),
    (5001, [ENTRY 1 True, SHIFT 7493]), (5003, [ENTRY 1 False, SHIFT 6753]),
    (5005, [ENTRY 1 False, SHIFT 6763]), (5007, [ENTRY 1 False, SHIFT 6764]),
    (5009, [ENTRY 1 False, SHIFT 6750]), (5011, [ENTRY 1 False, SHIFT 1860]),
    (5013, [ENTRY 1 True, SHIFT 7437]), (5015, [ENTRY 1 False, SHIFT 7091]),
    (5017, [ENTRY 1 False, SHIFT 7074]), (5019, [ENTRY 1 True, SHIFT 7652]),
    (5021, [ENTRY 1 False, SHIFT 7016]), (5023, [ENTRY 1 False, SHIFT 7045]),
    (5025, [ENTRY 1 True, SHIFT 7207]), (5027, [ENTRY 1 False, SHIFT 7085]),
    (5029, [ENTRY 1 False, SHIFT 7088]), (5031, [ENTRY 1 True, SHIFT 7248]),
    (5033, [ENTRY 1 True, SHIFT 7802]), (5035, [ENTRY 1 False, SHIFT 7482]),
    (5037, [ENTRY 1 True, SHIFT 3812]), (5039, [ENTRY 1 True, SHIFT 12501]),
    (5041, [ENTRY 1 False, SHIFT 4232]), (5043, [ENTRY 1 False, SHIFT 7515]),
    (5045, [ENTRY 1 False, SHIFT 7517]), (5047, [ENTRY 1 True, SHIFT 7064]),
    (5049, [ENTRY 1 True, SHIFT 4094]), (5051, [ENTRY 1 False, SHIFT 4085]),
    (5053, [ENTRY 1 False, SHIFT 7840]), (5055, [ENTRY 1 False, SHIFT 3714]),
    (5057, [ENTRY 1 False, SHIFT 1998]), (5059, [ENTRY 1 True, SHIFT 12592]),
    (5061, [ENTRY 1 True, SHIFT 7512]), (5063, [ENTRY 1 True, SHIFT 12529]),
    (5065, [ENTRY 1 True, SHIFT 7565]), (5067, [ENTRY 1 True, SHIFT 12648]),
    (5069, [ENTRY 1 True, SHIFT 7664]), (5071, [ENTRY 1 True, SHIFT 12463]),
    (5073, [ENTRY 1 True, SHIFT 7114]), (5075, [ENTRY 1 True, SHIFT 12585]),
    (5077, [ENTRY 1 True, SHIFT 7154]), (5079, [ENTRY 1 True, SHIFT 12738]),
    (5081, [ENTRY 1 True, SHIFT 7147]), (5083, [ENTRY 1 True, SHIFT 12716]),
    (5085, [ENTRY 1 True, SHIFT 7773]), (5087, [ENTRY 1 False, SHIFT 7672]),
    (5089, [ENTRY 1 True, SHIFT 3653]), (5091, [ENTRY 1 True, SHIFT 4257]),
    (5093, [ENTRY 1 False, SHIFT 7627]), (5095, [ENTRY 1 False, SHIFT 7612]),
    (5097, [ENTRY 1 True, SHIFT 3644]), (5099, [ENTRY 1 True, SHIFT 7738]),
    (5101, [ENTRY 1 False, SHIFT 2043]), (5103, [ENTRY 1 True, SHIFT 6891]),
    (5105, [ENTRY 1 False, SHIFT 7654]), (5107, [ENTRY 1 True, SHIFT 3655]),
    (5109, [ENTRY 1 True, SHIFT 8028]), (5111, [ENTRY 1 True, SHIFT 4112]),
    (5113, [ENTRY 1 False, SHIFT 7617]), (5115, [ENTRY 1 False, SHIFT 7704]),
    (5117, [ENTRY 1 True, SHIFT 3651]), (5119, [ENTRY 1 False, SHIFT 4266]),
    (5121, [ENTRY 1 False, SHIFT 7839]), (5123, [ENTRY 1 False, SHIFT 3882]),
    (5125, [ENTRY 1 False, SHIFT 2063]), (5127, [ENTRY 1 True, SHIFT 7812]),
    (5129, [ENTRY 1 True, SHIFT 7564]), (5131, [ENTRY 1 True, SHIFT 7951]),
    (5133, [ENTRY 1 True, SHIFT 8018]), (5135, [ENTRY 1 True, SHIFT 7759]),
    (5137, [ENTRY 1 True, SHIFT 7732]), (5139, [ENTRY 1 True, SHIFT 7961]),
    (5141, [ENTRY 1 True, SHIFT 6798]), (5143, [ENTRY 1 True, SHIFT 7792]),
    (5145, [ENTRY 1 True, SHIFT 6766]), (5147, [ENTRY 1 True, SHIFT 7974]),
    (5149, [ENTRY 1 True, SHIFT 7768]), (5151, [ENTRY 1 True, SHIFT 8042]),
    (5153, [ENTRY 1 True, SHIFT 7706]), (5155, [ENTRY 1 True, SHIFT 6855]),
    (5157, [ENTRY 1 True, SHIFT 7733]), (5159, [ENTRY 1 True, SHIFT 8040]),
    (5161, [ENTRY 1 True, SHIFT 7991]), (5163, [ENTRY 1 True, SHIFT 7683]),
    (5165, [ENTRY 1 False, SHIFT 7764]), (5167, [ENTRY 1 False, SHIFT 7760]),
    (5169, [ENTRY 1 False, SHIFT 7762]), (5171, [ENTRY 1 True, SHIFT 12604]),
    (5173, [ENTRY 1 False, SHIFT 7763]), (5175, [ENTRY 1 False, SHIFT 2084])]"

definition parse_actions_17 :: "(nat \<times> TSParseActionEntry list) list" where "parse_actions_17 = [
    (5177, [ENTRY 1 False, SHIFT 7730]), (5179, [ENTRY 1 True, REDUCE sym_pattern_list 2 0 0]),
    (5181, [ENTRY 1 True, SHIFT 3645]), (5183, [ENTRY 1 False, SHIFT 6867]),
    (5185, [ENTRY 1 False, SHIFT 7751]), (5187, [ENTRY 1 False, SHIFT 7752]),
    (5189, [ENTRY 1 True, SHIFT 3637]), (5191, [ENTRY 1 False, SHIFT 2050]),
    (5193, [ENTRY 1 True, SHIFT 12465]), (5195, [ENTRY 1 True, SHIFT 12650]),
    (5197, [ENTRY 1 True, SHIFT 12506]), (5199, [ENTRY 1 True, REDUCE sym_pattern_list 3 0 0]),
    (5201, [ENTRY 1 True, SHIFT 12597]), (5203, [ENTRY 1 False, SHIFT 7972]),
    (5205, [ENTRY 1 True, SHIFT 3657]), (5207, [ENTRY 1 True, SHIFT 6924]),
    (5209, [ENTRY 1 False, SHIFT 7978]), (5211, [ENTRY 1 False, SHIFT 6734]),
    (5213, [ENTRY 1 False, SHIFT 7982]), (5215, [ENTRY 1 False, SHIFT 7957]),
    (5217, [ENTRY 1 True, SHIFT 3658]), (5219, [ENTRY 1 False, SHIFT 3853]),
    (5221, [ENTRY 1 False, SHIFT 7531]), (5223, [ENTRY 1 True, SHIFT 3659]),
    (5225, [ENTRY 1 True, SHIFT 6829]), (5227, [ENTRY 1 False, SHIFT 7550]),
    (5229, [ENTRY 1 False, SHIFT 7546]), (5231, [ENTRY 1 True, SHIFT 3641]),
    (5233, [ENTRY 1 False, SHIFT 4279]), (5235, [ENTRY 1 False, SHIFT 7843]),
    (5237, [ENTRY 1 False, SHIFT 2006]), (5239, [ENTRY 1 False, SHIFT 7956]),
    (5241, [ENTRY 1 True, SHIFT 6837]), (5243, [ENTRY 1 True, SHIFT 7807]),
    (5245, [ENTRY 1 False, SHIFT 7536]), (5247, [ENTRY 1 True, SHIFT 3766]),
    (5249, [ENTRY 1 True, SHIFT 6974]), (5251, [ENTRY 1 True, SHIFT 12559]),
    (5253, [ENTRY 1 False, SHIFT 4112]), (5255, [ENTRY 1 False, SHIFT 7526]),
    (5257, [ENTRY 1 False, SHIFT 7533]), (5259, [ENTRY 1 True, SHIFT 4155]),
    (5261, [ENTRY 1 False, SHIFT 7534]), (5263, [ENTRY 1 False, SHIFT 2010]),
    (5265, [ENTRY 1 True, SHIFT 7491]), (5267, [ENTRY 1 True, SHIFT 7182]),
    (5269, [ENTRY 1 True, SHIFT 12700]), (5271, [ENTRY 1 True, SHIFT 7205]),
    (5273, [ENTRY 1 True, SHIFT 7209]), (5275, [ENTRY 1 True, SHIFT 7215]),
    (5277, [ENTRY 1 True, SHIFT 7216]), (5279, [ENTRY 1 True, SHIFT 7217]),
    (5281, [ENTRY 1 True, SHIFT 7219]), (5283, [ENTRY 1 True, SHIFT 7495]),
    (5285, [ENTRY 1 True, SHIFT 7498]), (5287, [ENTRY 1 True, SHIFT 7230]),
    (5289, [ENTRY 1 True, SHIFT 12595]), (5291, [ENTRY 1 True, SHIFT 7246]),
    (5293, [ENTRY 1 True, SHIFT 7251]), (5295, [ENTRY 1 True, SHIFT 7257]),
    (5297, [ENTRY 1 True, SHIFT 7258]), (5299, [ENTRY 1 True, SHIFT 7259]),
    (5301, [ENTRY 1 True, SHIFT 7260]), (5303, [ENTRY 1 True, SHIFT 7501]),
    (5305, [ENTRY 1 True, SHIFT 7502]), (5307, [ENTRY 1 True, SHIFT 7800]),
    (5309, [ENTRY 1 True, SHIFT 7804]), (5311, [ENTRY 1 True, SHIFT 7001]),
    (5313, [ENTRY 1 True, SHIFT 7808]), (5315, [ENTRY 1 True, SHIFT 7809]),
    (5317, [ENTRY 1 True, SHIFT 7810]), (5319, [ENTRY 1 True, SHIFT 7503]),
    (5321, [ENTRY 1 True, SHIFT 7271]), (5323, [ENTRY 1 True, SHIFT 7293]),
    (5325, [ENTRY 1 True, SHIFT 7299]), (5327, [ENTRY 1 True, SHIFT 7562]),
    (5329, [ENTRY 1 True, SHIFT 12602]), (5331, [ENTRY 1 True, SHIFT 7435]),
    (5333, [ENTRY 1 True, SHIFT 7300]), (5335, [ENTRY 1 True, SHIFT 7080]),
    (5337, [ENTRY 1 True, SHIFT 12522]), (5339, [ENTRY 1 False, SHIFT 7694]),
    (5341, [ENTRY 1 True, SHIFT 3758]), (5343, [ENTRY 1 True, SHIFT 5025]),
    (5345, [ENTRY 1 True, SHIFT 12702]), (5347, [ENTRY 1 False, SHIFT 4086]),
    (5349, [ENTRY 1 False, SHIFT 7700]), (5351, [ENTRY 1 False, SHIFT 7703]),
    (5353, [ENTRY 1 False, SHIFT 7579]), (5355, [ENTRY 1 False, SHIFT 2013]),
    (5357, [ENTRY 1 True, SHIFT 7585]), (5359, [ENTRY 1 True, SHIFT 7607]),
    (5361, [ENTRY 1 True, SHIFT 7656]), (5363, [ENTRY 1 True, SHIFT 7685]),
    (5365, [ENTRY 1 True, SHIFT 7698]), (5367, [ENTRY 1 False, SHIFT 7525]),
    (5369, [ENTRY 1 False, SHIFT 4120]), (5371, [ENTRY 1 True, REDUCE sym_yield 1 0 0]),
    (5373, [ENTRY 1 False, SHIFT 7544]), (5375, [ENTRY 1 False, SHIFT 7524]),
    (5377, [ENTRY 1 False, SHIFT 2001]), (5379, [ENTRY 1 True, SHIFT 7439]),
    (5381, [ENTRY 1 True, SHIFT 7265]), (5383, [ENTRY 1 True, SHIFT 12510]),
    (5385, [ENTRY 1 True, SHIFT 12565]), (5387, [ENTRY 1 True, SHIFT 12492]),
    (5389, [ENTRY 1 True, SHIFT 7442]), (5391, [ENTRY 1 False, SHIFT 7818]),
    (5393, [ENTRY 1 True, SHIFT 3648]), (5395, [ENTRY 1 False, SHIFT 6889]),
    (5397, [ENTRY 1 False, SHIFT 7813]), (5399, [ENTRY 1 False, SHIFT 7793]),
    (5401, [ENTRY 1 True, SHIFT 3640]), (5403, [ENTRY 1 False, SHIFT 2106]),
    (5405, [ENTRY 1 True, SHIFT 7443]), (5407, [ENTRY 1 True, SHIFT 7444]),
    (5409, [ENTRY 1 True, SHIFT 7445]), (5411, [ENTRY 1 True, SHIFT 7118]),
    (5413, [ENTRY 1 True, SHIFT 6800]), (5415, [ENTRY 1 True, SHIFT 7058]),
    (5417, [ENTRY 1 True, SHIFT 12735]), (5419, [ENTRY 1 True, SHIFT 7591]),
    (5421, [ENTRY 1 True, SHIFT 12466]), (5423, [ENTRY 1 True, SHIFT 7649]),
    (5425, [ENTRY 1 True, SHIFT 6773]), (5427, [ENTRY 1 True, SHIFT 7659]),
    (5429, [ENTRY 1 True, SHIFT 6780]), (5431, [ENTRY 1 True, SHIFT 7669]),
    (5433, [ENTRY 1 True, SHIFT 7670]), (5435, [ENTRY 1 True, SHIFT 6809]),
    (5437, [ENTRY 1 True, SHIFT 6776]), (5439, [ENTRY 1 True, SHIFT 6790]),
    (5441, [ENTRY 1 False, SHIFT 7634]), (5443, [ENTRY 1 True, SHIFT 7255]),
    (5445, [ENTRY 1 False, SHIFT 7566]), (5447, [ENTRY 1 False, SHIFT 7580]),
    (5449, [ENTRY 1 False, SHIFT 2051]), (5451, [ENTRY 1 True, SHIFT 7671]),
    (5453, [ENTRY 1 True, SHIFT 7673]), (5455, [ENTRY 1 True, SHIFT 7261]),
    (5457, [ENTRY 1 True, SHIFT 7004]), (5459, [ENTRY 1 True, SHIFT 7055]),
    (5461, [ENTRY 1 True, SHIFT 6988]), (5463, [ENTRY 1 True, SHIFT 6990]),
    (5465, [ENTRY 1 True, SHIFT 7000]), (5467, [ENTRY 1 True, SHIFT 7688]),
    (5469, [ENTRY 1 True, SHIFT 7136]), (5471, [ENTRY 1 True, SHIFT 7676]),
    (5473, [ENTRY 1 True, SHIFT 7678]), (5475, [ENTRY 1 True, SHIFT 6985])]"

definition parse_actions_18 :: "(nat \<times> TSParseActionEntry list) list" where "parse_actions_18 = [
    (5477, [ENTRY 1 True, SHIFT 7577]), (5479, [ENTRY 1 True, SHIFT 7578]),
    (5481, [ENTRY 1 True, SHIFT 7126]), (5483, [ENTRY 1 False, SHIFT 7404]),
    (5485, [ENTRY 1 True, SHIFT 7709]), (5487, [ENTRY 1 True, SHIFT 6987]),
    (5489, [ENTRY 1 True, SHIFT 12730]), (5491, [ENTRY 1 False, SHIFT 7775]),
    (5493, [ENTRY 1 True, SHIFT 3808]), (5495, [ENTRY 1 True, SHIFT 4185]),
    (5497, [ENTRY 1 False, SHIFT 7769]), (5499, [ENTRY 1 False, SHIFT 7770]),
    (5501, [ENTRY 2 True, REDUCE sym__collection_elements 2 0 0, SHIFT 7621]),
    (5504, [ENTRY 1 False, SHIFT 2030]), (5506, [ENTRY 1 True, SHIFT 7574]),
    (5508, [ENTRY 1 True, SHIFT 7127]), (5510, [ENTRY 1 True, SHIFT 6973]),
    (5512, [ENTRY 1 True, SHIFT 6975]), (5514, [ENTRY 1 True, SHIFT 7778]),
    (5516, [ENTRY 2 True, REDUCE sym__collection_elements 2 0 0, SHIFT 7740]),
    (5519, [ENTRY 1 True, SHIFT 7102]), (5521, [ENTRY 1 True, SHIFT 7103]),
    (5523, [ENTRY 2 True, REDUCE sym__collection_elements 2 0 0, SHIFT 7138]),
    (5526, [ENTRY 1 True, SHIFT 12566]), (5528, [ENTRY 1 True, SHIFT 12500]),
    (5530, [ENTRY 1 True, SHIFT 7084]), (5532, [ENTRY 1 True, SHIFT 7098]),
    (5534, [ENTRY 1 True, SHIFT 7647]), (5536, [ENTRY 1 True, SHIFT 7648]),
    (5538, [ENTRY 1 True, SHIFT 6978]), (5540, [ENTRY 1 True, SHIFT 6979]),
    (5542, [ENTRY 1 True, SHIFT 7667]),
    (5544, [ENTRY 2 True, REDUCE sym__collection_elements 2 0 0, SHIFT 6998]),
    (5547, [ENTRY 1 True, SHIFT 12659]), (5549, [ENTRY 1 True, SHIFT 12665]),
    (5551, [ENTRY 1 True, SHIFT 7668]), (5553, [ENTRY 1 True, SHIFT 7143]),
    (5555, [ENTRY 1 True, SHIFT 6980]), (5557, [ENTRY 1 True, SHIFT 6981]),
    (5559, [ENTRY 1 True, SHIFT 6991]), (5561, [ENTRY 1 True, SHIFT 7256]),
    (5563, [ENTRY 1 True, SHIFT 4562]), (5565, [ENTRY 1 True, SHIFT 4573]),
    (5567, [ENTRY 1 True, SHIFT 7554]), (5569, [ENTRY 1 True, SHIFT 7575]),
    (5571, [ENTRY 2 True, REDUCE sym__collection_elements 2 0 0, SHIFT 7188]),
    (5574, [ENTRY 1 True, SHIFT 7203]), (5576, [ENTRY 1 True, SHIFT 7204]),
    (5578, [ENTRY 1 True, SHIFT 7268]), (5580, [ENTRY 1 True, SHIFT 6317]),
    (5582, [ENTRY 1 True, SHIFT 6342]), (5584, [ENTRY 1 True, SHIFT 7304]),
    (5586, [ENTRY 1 True, SHIFT 7214]),
    (5588, [ENTRY 2 True, REDUCE sym__collection_elements 2 0 0, SHIFT 7447]),
    (5591, [ENTRY 1 True, SHIFT 7518]), (5593, [ENTRY 1 True, SHIFT 7519]),
    (5595, [ENTRY 1 True, SHIFT 12558]), (5597, [ENTRY 1 True, SHIFT 7560]),
    (5599, [ENTRY 2 True, REDUCE sym__collection_elements 2 0 0, SHIFT 7158]),
    (5602, [ENTRY 1 True, SHIFT 7244]), (5604, [ENTRY 1 True, SHIFT 7228]),
    (5606, [ENTRY 1 True, SHIFT 7231]), (5608, [ENTRY 1 True, SHIFT 7245]),
    (5610, [ENTRY 2 True, REDUCE sym__collection_elements 2 0 0, SHIFT 7628]),
    (5613, [ENTRY 1 True, SHIFT 7279]), (5615, [ENTRY 1 True, SHIFT 7281]),
    (5617, [ENTRY 1 True, SHIFT 7254]), (5619, [ENTRY 1 True, SHIFT 6994]),
    (5621, [ENTRY 1 True, SHIFT 6853]), (5623, [ENTRY 1 False, REDUCE sym_for_in_clause 6 0 127]),
    (5625, [ENTRY 1 True, REDUCE sym_for_in_clause 6 0 127]), (5627, [ENTRY 1 False, SHIFT 7829]),
    (5629, [ENTRY 1 False, SHIFT 7104]),
    (5631, [ENTRY 1 True, REDUCE sym__collection_elements 2 0 0]),
    (5633, [ENTRY 1 True, SHIFT 4086]),
    (5635, [ENTRY 1 True, REDUCE sym__collection_elements 3 0 0]),
    (5637, [ENTRY 1 True, REDUCE sym_for_in_clause 5 0 40]), (5639, [ENTRY 1 True, SHIFT 6831]),
    (5641, [ENTRY 1 False, REDUCE sym_for_in_clause 5 0 40]), (5643, [ENTRY 1 False, SHIFT 7837]),
    (5645, [ENTRY 1 False, SHIFT 7522]), (5647, [ENTRY 1 True, SHIFT 6868]),
    (5649, [ENTRY 1 False, SHIFT 7548]), (5651, [ENTRY 1 False, SHIFT 7552]),
    (5653, [ENTRY 1 False, SHIFT 7845]), (5655, [ENTRY 1 False, SHIFT 2012]),
    (5657, [ENTRY 1 True, REDUCE sym_for_in_clause 7 0 165]),
    (5659, [ENTRY 1 False, REDUCE sym_for_in_clause 7 0 165]),
    (5661, [ENTRY 1 True, REDUCE sym_for_in_clause 7 0 166]),
    (5663, [ENTRY 1 False, REDUCE sym_for_in_clause 7 0 166]),
    (5665, [ENTRY 1 False, REDUCE sym_for_in_clause 6 0 128]),
    (5667, [ENTRY 1 True, REDUCE sym_for_in_clause 6 0 128]),
    (5669, [ENTRY 1 True, REDUCE sym_for_in_clause 8 0 217]),
    (5671, [ENTRY 1 False, REDUCE sym_for_in_clause 8 0 217]), (5673, [ENTRY 1 False, SHIFT 7097]),
    (5675, [ENTRY 1 True, SHIFT 4264]), (5677, [ENTRY 1 True, REDUCE sym_expression_list 2 0 0]),
    (5679, [ENTRY 1 True, REDUCE sym_expression_list 3 0 0]), (5681, [ENTRY 1 True, SHIFT 7460]),
    (5683, [ENTRY 1 True, REDUCE sym_try_statement 5 0 71]),
    (5685, [ENTRY 1 False, REDUCE sym_try_statement 5 0 71]), (5687, [ENTRY 1 False, SHIFT 12625]),
    (5689, [ENTRY 1 False, SHIFT 12723]), (5691, [ENTRY 1 True, SHIFT 4096]),
    (5693, [ENTRY 1 False, SHIFT 4022]), (5695, [ENTRY 1 True, SHIFT 7446]),
    (5697, [ENTRY 1 False, SHIFT 12507]), (5699, [ENTRY 1 False, SHIFT 4014]),
    (5701, [ENTRY 1 False, SHIFT 12673]), (5703, [ENTRY 1 True, SHIFT 4180]),
    (5705, [ENTRY 1 False, SHIFT 4204]), (5707, [ENTRY 1 False, SHIFT 4249]),
    (5709, [ENTRY 1 True, SHIFT 6925]), (5711, [ENTRY 1 True, SHIFT 7753]),
    (5713, [ENTRY 1 True, SHIFT 6996]), (5715, [ENTRY 1 True, REDUCE sym_try_statement 4 0 48]),
    (5717, [ENTRY 1 False, REDUCE sym_try_statement 4 0 48]), (5719, [ENTRY 1 True, SHIFT 7610]),
    (5721, [ENTRY 1 True, SHIFT 7153]), (5723, [ENTRY 1 True, SHIFT 7122]),
    (5725, [ENTRY 1 True, REDUCE sym_raise_statement 1 0 0]), (5727, [ENTRY 1 False, SHIFT 4201]),
    (5729, [ENTRY 1 True, SHIFT 7629]), (5731, [ENTRY 1 True, SHIFT 7187]),
    (5733, [ENTRY 1 True, SHIFT 7620]), (5735, [ENTRY 1 True, SHIFT 7757]),
    (5737, [ENTRY 1 True, SHIFT 7199]), (5739, [ENTRY 1 True, SHIFT 7144]),
    (5741, [ENTRY 1 True, SHIFT 7616]), (5743, [ENTRY 1 True, SHIFT 7137]),
    (5745, [ENTRY 1 True, SHIFT 7065]), (5747, [ENTRY 1 False, SHIFT 4198]),
    (5749, [ENTRY 1 True, SHIFT 6818]), (5751, [ENTRY 1 False, REDUCE sym_expression_list 2 0 0]),
    (5753, [ENTRY 1 True, SHIFT 8847]), (5755, [ENTRY 1 False, SHIFT 12311]),
    (5757, [ENTRY 1 True, REDUCE sym_return_statement 1 0 0]), (5759, [ENTRY 1 True, SHIFT 8991]),
    (5761, [ENTRY 1 True, REDUCE sym_dictionary_splat_pattern 2 0 5]),
    (5763, [ENTRY 1 True, SHIFT 8889]), (5765, [ENTRY 1 True, SHIFT 8711]),
    (5767, [ENTRY 1 True, SHIFT 9018]), (5769, [ENTRY 1 True, SHIFT 9006]),
    (5771, [ENTRY 1 False, REDUCE sym_expression_list 3 0 0]),
    (5773, [ENTRY 1 True, REDUCE sym_slice 2 0 0]), (5775, [ENTRY 1 True, SHIFT 3951]),
    (5777, [ENTRY 1 True, SHIFT 9037]), (5779, [ENTRY 1 True, SHIFT 9128]),
    (5781, [ENTRY 1 True, REDUCE sym_slice 1 0 0]), (5783, [ENTRY 1 True, SHIFT 3967])]"

definition parse_actions_19 :: "(nat \<times> TSParseActionEntry list) list" where "parse_actions_19 = [
    (5785, [ENTRY 1 True, SHIFT 7447]), (5787, [ENTRY 1 True, SHIFT 7630]),
    (5789, [ENTRY 1 True, SHIFT 7740]), (5791, [ENTRY 1 False, SHIFT 7383]),
    (5793, [ENTRY 1 False, SHIFT 7934]), (5795, [ENTRY 1 False, SHIFT 7935]),
    (5797, [ENTRY 1 True, SHIFT 7761]), (5799, [ENTRY 1 True, SHIFT 3738]),
    (5801, [ENTRY 1 True, REDUCE aux_sym_try_statement_repeat1 2 0 0]),
    (5803, [ENTRY 1 False, REDUCE aux_sym_try_statement_repeat1 2 0 0]),
    (5805, [ENTRY 2 False, REDUCE aux_sym_try_statement_repeat1 2 0 0, SHIFT_REPEAT 4022]),
    (5808, [ENTRY 1 True, SHIFT 7461]),
    (5810, [ENTRY 1 True, REDUCE aux_sym_try_statement_repeat2 2 0 0]),
    (5812, [ENTRY 1 False, REDUCE aux_sym_try_statement_repeat2 2 0 0]),
    (5814, [ENTRY 2 True, REDUCE aux_sym_try_statement_repeat2 2 0 0, SHIFT_REPEAT 4096]),
    (5817, [ENTRY 1 False, REDUCE sym_if_statement 5 0 64]),
    (5819, [ENTRY 1 True, REDUCE sym_if_statement 5 0 64]), (5821, [ENTRY 1 False, SHIFT 4181]),
    (5823, [ENTRY 1 False, REDUCE sym_if_statement 5 0 65]),
    (5825, [ENTRY 1 True, REDUCE sym_if_statement 5 0 65]),
    (5827, [ENTRY 1 True, REDUCE sym_print_statement 3 0 0]),
    (5829, [ENTRY 1 True, REDUCE sym_print_statement 3 (- 1) 6]),
    (5831, [ENTRY 1 True, SHIFT 7138]),
    (5833, [ENTRY 2 False, REDUCE aux_sym_try_statement_repeat1 2 0 0, SHIFT_REPEAT 4014]),
    (5836, [ENTRY 2 True, REDUCE aux_sym_try_statement_repeat2 2 0 0, SHIFT_REPEAT 4180]),
    (5839, [ENTRY 1 True, SHIFT 7145]), (5841, [ENTRY 1 True, REDUCE sym_with_clause 2 0 0]),
    (5843, [ENTRY 1 True, SHIFT 12483]), (5845, [ENTRY 1 True, SHIFT 6998]),
    (5847, [ENTRY 1 True, REDUCE sym_tuple_expression 5 0 0]),
    (5849, [ENTRY 1 True, REDUCE sym_slice 4 0 0]),
    (5851, [ENTRY 1 False, REDUCE sym_if_statement 6 0 102]),
    (5853, [ENTRY 1 True, REDUCE sym_if_statement 6 0 102]),
    (5855, [ENTRY 1 False, REDUCE sym_if_statement 4 0 43]),
    (5857, [ENTRY 1 True, REDUCE sym_if_statement 4 0 43]),
    (5859, [ENTRY 1 True, REDUCE sym_print_statement 4 0 14]),
    (5861, [ENTRY 1 True, REDUCE sym_print_statement 4 (- 1) 15]),
    (5863, [ENTRY 1 False, SHIFT 4195]), (5865, [ENTRY 1 True, REDUCE sym_slice 3 0 0]),
    (5867, [ENTRY 1 True, SHIFT 7200]), (5869, [ENTRY 1 True, SHIFT 12512]),
    (5871, [ENTRY 1 True, REDUCE sym_with_clause 3 0 0]), (5873, [ENTRY 1 True, SHIFT 7624]),
    (5875, [ENTRY 1 True, SHIFT 6964]), (5877, [ENTRY 1 True, REDUCE sym_tuple_expression 4 0 0]),
    (5879, [ENTRY 1 True, REDUCE sym_tuple_expression 2 0 0]), (5881, [ENTRY 1 False, SHIFT 7721]),
    (5883, [ENTRY 1 False, SHIFT 7722]), (5885, [ENTRY 1 True, SHIFT 7158]),
    (5887, [ENTRY 1 True, SHIFT 7220]), (5889, [ENTRY 1 True, SHIFT 7188]),
    (5891, [ENTRY 1 True, SHIFT 7621]), (5893, [ENTRY 1 True, SHIFT 7628]),
    (5895, [ENTRY 1 True, SHIFT 7930]), (5897, [ENTRY 1 True, SHIFT 7202]),
    (5899, [ENTRY 1 True, SHIFT 7148]), (5901, [ENTRY 1 True, SHIFT 7644]),
    (5903, [ENTRY 1 True, SHIFT 11948]), (5905, [ENTRY 1 True, SHIFT 7011]),
    (5907, [ENTRY 1 True, SHIFT 7632]), (5909, [ENTRY 1 False, REDUCE sym_block 1 0 0]),
    (5911, [ENTRY 1 True, REDUCE sym_block 1 0 0]),
    (5913, [ENTRY 1 True, REDUCE sym__simple_statements 3 0 0]),
    (5915, [ENTRY 1 False, REDUCE sym__simple_statements 3 0 0]),
    (5917, [ENTRY 1 False, REDUCE sym_block 2 0 0]),
    (5919, [ENTRY 1 True, REDUCE sym_block 2 0 0]), (5921, [ENTRY 1 True, SHIFT 11435]),
    (5923, [ENTRY 1 False, REDUCE aux_sym_if_statement_repeat1 2 0 100]),
    (5925, [ENTRY 1 True, REDUCE aux_sym_if_statement_repeat1 2 0 100]),
    (5927, [ENTRY 2 False, REDUCE aux_sym_if_statement_repeat1 2 0 100, SHIFT_REPEAT 4181]),
    (5930, [ENTRY 1 True, SHIFT 12091]),
    (5932, [ENTRY 1 False, REDUCE sym__simple_statements 4 0 0]),
    (5934, [ENTRY 1 True, REDUCE sym__simple_statements 4 0 0]),
    (5936, [ENTRY 1 False, SHIFT 7742]), (5938, [ENTRY 1 True, SHIFT 1236]),
    (5940, [ENTRY 1 True, REDUCE sym__simple_statements 2 0 0]),
    (5942, [ENTRY 1 False, REDUCE sym__simple_statements 2 0 0]),
    (5944, [ENTRY 1 True, SHIFT 7718]), (5946, [ENTRY 1 True, SHIFT 12047]),
    (5948, [ENTRY 1 True, SHIFT 12075]), (5950, [ENTRY 1 True, SHIFT 1670]),
    (5952, [ENTRY 1 True, SHIFT 7212]), (5954, [ENTRY 1 True, SHIFT 7469]),
    (5956, [ENTRY 1 True, SHIFT 7928]), (5958, [ENTRY 1 True, SHIFT 11703]),
    (5960, [ENTRY 1 True, SHIFT 11834]), (5962, [ENTRY 1 True, SHIFT 7571]),
    (5964, [ENTRY 1 True, SHIFT 7463]), (5966, [ENTRY 1 True, SHIFT 7715]),
    (5968, [ENTRY 1 True, SHIFT 7146]), (5970, [ENTRY 1 True, SHIFT 7222]),
    (5972, [ENTRY 1 True, SHIFT 7639]), (5974, [ENTRY 1 True, SHIFT 7884]),
    (5976, [ENTRY 1 True, SHIFT 7277]),
    (5978, [ENTRY 2 False, REDUCE aux_sym_if_statement_repeat1 2 0 100, SHIFT_REPEAT 4195]),
    (5981, [ENTRY 1 True, SHIFT 7886]), (5983, [ENTRY 1 True, SHIFT 12088]),
    (5985, [ENTRY 1 True, SHIFT 6992]), (5987, [ENTRY 1 False, SHIFT 7983]),
    (5989, [ENTRY 1 True, SHIFT 3650]), (5991, [ENTRY 1 False, SHIFT 4099]),
    (5993, [ENTRY 1 False, SHIFT 7964]), (5995, [ENTRY 1 False, REDUCE sym_except_clause 6 0 245]),
    (5997, [ENTRY 1 True, REDUCE sym_except_clause 6 0 245]),
    (5999, [ENTRY 1 False, REDUCE sym_except_group_clause 6 0 245]),
    (6001, [ENTRY 1 True, REDUCE sym_except_group_clause 6 0 245]),
    (6003, [ENTRY 1 False, REDUCE sym_except_clause 3 0 109]),
    (6005, [ENTRY 1 True, REDUCE sym_except_clause 3 0 109]), (6007, [ENTRY 1 False, SHIFT 7777]),
    (6009, [ENTRY 1 False, SHIFT 7716]), (6011, [ENTRY 1 False, SHIFT 7717]),
    (6013, [ENTRY 1 False, SHIFT 2011]),
    (6015, [ENTRY 1 False, REDUCE sym_except_group_clause 5 0 0]),
    (6017, [ENTRY 1 True, REDUCE sym_except_group_clause 5 0 0]),
    (6019, [ENTRY 1 False, SHIFT 7572]), (6021, [ENTRY 1 False, SHIFT 7702]),
    (6023, [ENTRY 1 False, SHIFT 7690]),
    (6025, [ENTRY 1 True, REDUCE sym_except_group_clause 4 0 142]),
    (6027, [ENTRY 1 False, REDUCE sym_except_group_clause 4 0 142]),
    (6029, [ENTRY 1 False, REDUCE sym_except_clause 7 0 0]),
    (6031, [ENTRY 1 True, REDUCE sym_except_clause 7 0 0]),
    (6033, [ENTRY 1 True, REDUCE sym_except_clause 4 0 0]),
    (6035, [ENTRY 1 False, REDUCE sym_except_clause 4 0 0]), (6037, [ENTRY 1 False, SHIFT 7749]),
    (6039, [ENTRY 1 False, SHIFT 7776]), (6041, [ENTRY 1 False, REDUCE sym_except_clause 5 0 0]),
    (6043, [ENTRY 1 True, REDUCE sym_except_clause 5 0 0]),
    (6045, [ENTRY 1 False, REDUCE sym_except_group_clause 7 0 0]),
    (6047, [ENTRY 1 True, REDUCE sym_except_group_clause 7 0 0]),
    (6049, [ENTRY 1 False, SHIFT 7783]), (6051, [ENTRY 1 False, SHIFT 7790]),
    (6053, [ENTRY 1 False, SHIFT 7780]), (6055, [ENTRY 1 False, SHIFT 2018]),
    (6057, [ENTRY 1 False, REDUCE sym_except_clause 4 0 142]),
    (6059, [ENTRY 1 True, REDUCE sym_except_clause 4 0 142]), (6061, [ENTRY 1 False, SHIFT 7539]),
    (6063, [ENTRY 1 False, SHIFT 7537]), (6065, [ENTRY 1 False, SHIFT 7540]),
    (6067, [ENTRY 1 False, SHIFT 7584]), (6069, [ENTRY 1 False, SHIFT 2007]),
    (6071, [ENTRY 1 False, SHIFT 7965]), (6073, [ENTRY 1 False, SHIFT 7710]),
    (6075, [ENTRY 1 False, SHIFT 7771]), (6077, [ENTRY 1 False, SHIFT 7772]),
    (6079, [ENTRY 1 True, REDUCE aux_sym_if_statement_repeat1 1 0 62]),
    (6081, [ENTRY 1 False, REDUCE aux_sym_if_statement_repeat1 1 0 62]),
    (6083, [ENTRY 1 True, REDUCE sym_try_statement 6 0 71]),
    (6085, [ENTRY 1 False, REDUCE sym_try_statement 6 0 71]),
    (6087, [ENTRY 1 False, REDUCE sym_try_statement 5 0 48]),
    (6089, [ENTRY 1 True, REDUCE sym_try_statement 5 0 48])]"

definition parse_actions_20 :: "(nat \<times> TSParseActionEntry list) list" where "parse_actions_20 = [
    (6091, [ENTRY 1 True, REDUCE sym_while_statement 5 0 70]),
    (6093, [ENTRY 1 False, REDUCE sym_while_statement 5 0 70]),
    (6095, [ENTRY 1 True, REDUCE sym_for_statement 8 0 173]),
    (6097, [ENTRY 1 False, REDUCE sym_for_statement 8 0 173]),
    (6099, [ENTRY 1 True, REDUCE sym_elif_clause 4 0 43]),
    (6101, [ENTRY 1 False, REDUCE sym_elif_clause 4 0 43]),
    (6103, [ENTRY 1 True, REDUCE sym_for_statement 8 0 174]),
    (6105, [ENTRY 1 False, REDUCE sym_for_statement 8 0 174]),
    (6107, [ENTRY 1 True, REDUCE sym_for_statement 9 0 228]),
    (6109, [ENTRY 1 False, REDUCE sym_for_statement 9 0 228]),
    (6111, [ENTRY 1 False, REDUCE sym_elif_clause 5 0 65]),
    (6113, [ENTRY 1 True, REDUCE sym_elif_clause 5 0 65]),
    (6115, [ENTRY 1 False, REDUCE sym_for_statement 6 0 107]),
    (6117, [ENTRY 1 True, REDUCE sym_for_statement 6 0 107]),
    (6119, [ENTRY 1 False, REDUCE sym_while_statement 4 0 47]),
    (6121, [ENTRY 1 True, REDUCE sym_while_statement 4 0 47]),
    (6123, [ENTRY 1 False, REDUCE sym_for_statement 7 0 135]),
    (6125, [ENTRY 1 True, REDUCE sym_for_statement 7 0 135]),
    (6127, [ENTRY 1 False, REDUCE sym_for_statement 7 0 141]),
    (6129, [ENTRY 1 True, REDUCE sym_for_statement 7 0 141]),
    (6131, [ENTRY 1 True, REDUCE sym_else_clause 3 0 48]),
    (6133, [ENTRY 1 False, REDUCE sym_else_clause 3 0 48]),
    (6135, [ENTRY 1 True, REDUCE sym_else_clause 4 0 71]),
    (6137, [ENTRY 1 False, REDUCE sym_else_clause 4 0 71]),
    (6139, [ENTRY 1 True, REDUCE sym_function_definition 13 0 555]),
    (6141, [ENTRY 1 False, REDUCE sym_function_definition 13 0 555]),
    (6143, [ENTRY 1 False, REDUCE sym_function_definition 17 0 914]),
    (6145, [ENTRY 1 True, REDUCE sym_function_definition 17 0 914]),
    (6147, [ENTRY 1 False, REDUCE sym_function_definition 17 0 915]),
    (6149, [ENTRY 1 True, REDUCE sym_function_definition 17 0 915]),
    (6151, [ENTRY 1 False, REDUCE sym_function_definition 17 0 916]),
    (6153, [ENTRY 1 True, REDUCE sym_function_definition 17 0 916]),
    (6155, [ENTRY 1 False, REDUCE sym_function_definition 17 0 917]),
    (6157, [ENTRY 1 True, REDUCE sym_function_definition 17 0 917]),
    (6159, [ENTRY 1 False, REDUCE sym_function_definition 17 0 918]),
    (6161, [ENTRY 1 True, REDUCE sym_function_definition 17 0 918]),
    (6163, [ENTRY 1 False, REDUCE sym_function_definition 17 0 919]),
    (6165, [ENTRY 1 True, REDUCE sym_function_definition 17 0 919]),
    (6167, [ENTRY 1 False, REDUCE sym_function_definition 17 0 920]),
    (6169, [ENTRY 1 True, REDUCE sym_function_definition 17 0 920]),
    (6171, [ENTRY 1 False, REDUCE sym_function_definition 17 0 921]),
    (6173, [ENTRY 1 True, REDUCE sym_function_definition 17 0 921]),
    (6175, [ENTRY 1 False, REDUCE sym_function_definition 17 0 922]),
    (6177, [ENTRY 1 True, REDUCE sym_function_definition 17 0 922]),
    (6179, [ENTRY 1 False, REDUCE sym_function_definition 17 0 923]),
    (6181, [ENTRY 1 True, REDUCE sym_function_definition 17 0 923]),
    (6183, [ENTRY 1 False, REDUCE sym_function_definition 17 0 924]),
    (6185, [ENTRY 1 True, REDUCE sym_function_definition 17 0 924]),
    (6187, [ENTRY 1 False, REDUCE sym_function_definition 17 0 925]),
    (6189, [ENTRY 1 True, REDUCE sym_function_definition 17 0 925]),
    (6191, [ENTRY 1 False, REDUCE sym_function_definition 17 0 926]),
    (6193, [ENTRY 1 True, REDUCE sym_function_definition 17 0 926]),
    (6195, [ENTRY 1 False, REDUCE sym_function_definition 17 0 927]),
    (6197, [ENTRY 1 True, REDUCE sym_function_definition 17 0 927]),
    (6199, [ENTRY 1 False, REDUCE sym_function_definition 17 0 928]),
    (6201, [ENTRY 1 True, REDUCE sym_function_definition 17 0 928]),
    (6203, [ENTRY 1 False, REDUCE sym_function_definition 17 0 929]),
    (6205, [ENTRY 1 True, REDUCE sym_function_definition 17 0 929]),
    (6207, [ENTRY 1 False, REDUCE sym_function_definition 17 0 930]),
    (6209, [ENTRY 1 True, REDUCE sym_function_definition 17 0 930]),
    (6211, [ENTRY 1 False, REDUCE sym_function_definition 17 0 931]),
    (6213, [ENTRY 1 True, REDUCE sym_function_definition 17 0 931]),
    (6215, [ENTRY 1 False, REDUCE sym_function_definition 17 0 932]),
    (6217, [ENTRY 1 True, REDUCE sym_function_definition 17 0 932]),
    (6219, [ENTRY 1 False, REDUCE sym_function_definition 17 0 933]),
    (6221, [ENTRY 1 True, REDUCE sym_function_definition 17 0 933]),
    (6223, [ENTRY 1 False, REDUCE sym_function_definition 17 0 934]),
    (6225, [ENTRY 1 True, REDUCE sym_function_definition 17 0 934]),
    (6227, [ENTRY 1 False, REDUCE sym_function_definition 17 0 935]),
    (6229, [ENTRY 1 True, REDUCE sym_function_definition 17 0 935]),
    (6231, [ENTRY 1 False, REDUCE sym_function_definition 17 0 936]),
    (6233, [ENTRY 1 True, REDUCE sym_function_definition 17 0 936]),
    (6235, [ENTRY 1 False, REDUCE sym_function_definition 17 0 937]),
    (6237, [ENTRY 1 True, REDUCE sym_function_definition 17 0 937]),
    (6239, [ENTRY 1 False, REDUCE sym_function_definition 17 0 938]),
    (6241, [ENTRY 1 True, REDUCE sym_function_definition 17 0 938]),
    (6243, [ENTRY 1 False, REDUCE sym_function_definition 17 0 939]),
    (6245, [ENTRY 1 True, REDUCE sym_function_definition 17 0 939]),
    (6247, [ENTRY 1 False, REDUCE sym_function_definition 17 0 940]),
    (6249, [ENTRY 1 True, REDUCE sym_function_definition 17 0 940]),
    (6251, [ENTRY 1 False, REDUCE sym_function_definition 17 0 941]),
    (6253, [ENTRY 1 True, REDUCE sym_function_definition 17 0 941]),
    (6255, [ENTRY 1 False, REDUCE sym_function_definition 17 0 942]),
    (6257, [ENTRY 1 True, REDUCE sym_function_definition 17 0 942]),
    (6259, [ENTRY 1 False, REDUCE sym_function_definition 17 0 943]),
    (6261, [ENTRY 1 True, REDUCE sym_function_definition 17 0 943]),
    (6263, [ENTRY 1 False, REDUCE sym_function_definition 17 0 944]),
    (6265, [ENTRY 1 True, REDUCE sym_function_definition 17 0 944]),
    (6267, [ENTRY 1 False, REDUCE sym_function_definition 17 0 945]),
    (6269, [ENTRY 1 True, REDUCE sym_function_definition 17 0 945]),
    (6271, [ENTRY 1 False, REDUCE sym_function_definition 17 0 946]),
    (6273, [ENTRY 1 True, REDUCE sym_function_definition 17 0 946]),
    (6275, [ENTRY 1 False, REDUCE sym_function_definition 17 0 947]),
    (6277, [ENTRY 1 True, REDUCE sym_function_definition 17 0 947]),
    (6279, [ENTRY 1 False, REDUCE sym_function_definition 17 0 948]),
    (6281, [ENTRY 1 True, REDUCE sym_function_definition 17 0 948]),
    (6283, [ENTRY 1 False, REDUCE sym_function_definition 17 0 949]),
    (6285, [ENTRY 1 True, REDUCE sym_function_definition 17 0 949]),
    (6287, [ENTRY 1 False, REDUCE sym_function_definition 17 0 950]),
    (6289, [ENTRY 1 True, REDUCE sym_function_definition 17 0 950]),
    (6291, [ENTRY 1 False, REDUCE sym_function_definition 17 0 951]),
    (6293, [ENTRY 1 True, REDUCE sym_function_definition 17 0 951]),
    (6295, [ENTRY 1 False, REDUCE sym_function_definition 17 0 952]),
    (6297, [ENTRY 1 True, REDUCE sym_function_definition 17 0 952]),
    (6299, [ENTRY 1 False, REDUCE sym_function_definition 17 0 953]),
    (6301, [ENTRY 1 True, REDUCE sym_function_definition 17 0 953]),
    (6303, [ENTRY 1 False, REDUCE sym_function_definition 17 0 954]),
    (6305, [ENTRY 1 True, REDUCE sym_function_definition 17 0 954]),
    (6307, [ENTRY 1 False, REDUCE sym_function_definition 17 0 955]),
    (6309, [ENTRY 1 True, REDUCE sym_function_definition 17 0 955]),
    (6311, [ENTRY 1 False, REDUCE sym_function_definition 17 0 956]),
    (6313, [ENTRY 1 True, REDUCE sym_function_definition 17 0 956]),
    (6315, [ENTRY 1 False, REDUCE sym_function_definition 17 0 957]),
    (6317, [ENTRY 1 True, REDUCE sym_function_definition 17 0 957]),
    (6319, [ENTRY 1 False, REDUCE sym_function_definition 17 0 958]),
    (6321, [ENTRY 1 True, REDUCE sym_function_definition 17 0 958]),
    (6323, [ENTRY 1 False, REDUCE sym_function_definition 17 0 959]),
    (6325, [ENTRY 1 True, REDUCE sym_function_definition 17 0 959]),
    (6327, [ENTRY 1 False, REDUCE sym_function_definition 17 0 960]),
    (6329, [ENTRY 1 True, REDUCE sym_function_definition 17 0 960]),
    (6331, [ENTRY 1 False, REDUCE sym_function_definition 17 0 961]),
    (6333, [ENTRY 1 True, REDUCE sym_function_definition 17 0 961]),
    (6335, [ENTRY 1 False, REDUCE sym_function_definition 18 0 962]),
    (6337, [ENTRY 1 True, REDUCE sym_function_definition 18 0 962]),
    (6339, [ENTRY 1 False, REDUCE sym_function_definition 18 0 963]),
    (6341, [ENTRY 1 True, REDUCE sym_function_definition 18 0 963]),
    (6343, [ENTRY 1 False, REDUCE sym_function_definition 18 0 964]),
    (6345, [ENTRY 1 True, REDUCE sym_function_definition 18 0 964]),
    (6347, [ENTRY 1 False, REDUCE sym_function_definition 18 0 965]),
    (6349, [ENTRY 1 True, REDUCE sym_function_definition 18 0 965]),
    (6351, [ENTRY 1 False, REDUCE sym_function_definition 18 0 966]),
    (6353, [ENTRY 1 True, REDUCE sym_function_definition 18 0 966]),
    (6355, [ENTRY 1 False, REDUCE sym_function_definition 18 0 967]),
    (6357, [ENTRY 1 True, REDUCE sym_function_definition 18 0 967]),
    (6359, [ENTRY 1 False, REDUCE sym_function_definition 18 0 968]),
    (6361, [ENTRY 1 True, REDUCE sym_function_definition 18 0 968]),
    (6363, [ENTRY 1 False, REDUCE sym_function_definition 18 0 969]),
    (6365, [ENTRY 1 True, REDUCE sym_function_definition 18 0 969]),
    (6367, [ENTRY 1 False, REDUCE sym_function_definition 18 0 970]),
    (6369, [ENTRY 1 True, REDUCE sym_function_definition 18 0 970]),
    (6371, [ENTRY 1 False, REDUCE sym_function_definition 18 0 971]),
    (6373, [ENTRY 1 True, REDUCE sym_function_definition 18 0 971]),
    (6375, [ENTRY 1 False, REDUCE sym_function_definition 18 0 972]),
    (6377, [ENTRY 1 True, REDUCE sym_function_definition 18 0 972]),
    (6379, [ENTRY 1 False, REDUCE sym_function_definition 18 0 973]),
    (6381, [ENTRY 1 True, REDUCE sym_function_definition 18 0 973]),
    (6383, [ENTRY 1 False, REDUCE sym_function_definition 18 0 974]),
    (6385, [ENTRY 1 True, REDUCE sym_function_definition 18 0 974]),
    (6387, [ENTRY 1 False, REDUCE sym_function_definition 18 0 975]),
    (6389, [ENTRY 1 True, REDUCE sym_function_definition 18 0 975])]"

definition parse_actions_21 :: "(nat \<times> TSParseActionEntry list) list" where "parse_actions_21 = [
    (6391, [ENTRY 1 False, REDUCE sym_function_definition 18 0 976]),
    (6393, [ENTRY 1 True, REDUCE sym_function_definition 18 0 976]),
    (6395, [ENTRY 1 False, REDUCE sym_function_definition 18 0 977]),
    (6397, [ENTRY 1 True, REDUCE sym_function_definition 18 0 977]),
    (6399, [ENTRY 1 False, REDUCE sym_function_definition 18 0 978]),
    (6401, [ENTRY 1 True, REDUCE sym_function_definition 18 0 978]),
    (6403, [ENTRY 1 False, REDUCE sym_function_definition 18 0 979]),
    (6405, [ENTRY 1 True, REDUCE sym_function_definition 18 0 979]),
    (6407, [ENTRY 1 False, REDUCE sym_function_definition 18 0 980]),
    (6409, [ENTRY 1 True, REDUCE sym_function_definition 18 0 980]),
    (6411, [ENTRY 1 False, REDUCE sym_function_definition 18 0 981]),
    (6413, [ENTRY 1 True, REDUCE sym_function_definition 18 0 981]),
    (6415, [ENTRY 1 False, REDUCE sym_function_definition 18 0 982]),
    (6417, [ENTRY 1 True, REDUCE sym_function_definition 18 0 982]),
    (6419, [ENTRY 1 False, REDUCE sym_function_definition 18 0 983]),
    (6421, [ENTRY 1 True, REDUCE sym_function_definition 18 0 983]),
    (6423, [ENTRY 1 False, REDUCE sym_function_definition 18 0 984]),
    (6425, [ENTRY 1 True, REDUCE sym_function_definition 18 0 984]),
    (6427, [ENTRY 1 False, REDUCE sym_function_definition 18 0 985]),
    (6429, [ENTRY 1 True, REDUCE sym_function_definition 18 0 985]),
    (6431, [ENTRY 1 False, REDUCE sym_function_definition 18 0 986]),
    (6433, [ENTRY 1 True, REDUCE sym_function_definition 18 0 986]),
    (6435, [ENTRY 1 False, REDUCE sym_function_definition 18 0 987]),
    (6437, [ENTRY 1 True, REDUCE sym_function_definition 18 0 987]),
    (6439, [ENTRY 1 False, REDUCE sym_function_definition 18 0 988]),
    (6441, [ENTRY 1 True, REDUCE sym_function_definition 18 0 988]),
    (6443, [ENTRY 1 False, REDUCE sym_function_definition 18 0 989]),
    (6445, [ENTRY 1 True, REDUCE sym_function_definition 18 0 989]),
    (6447, [ENTRY 1 False, REDUCE sym_function_definition 19 0 990]),
    (6449, [ENTRY 1 True, REDUCE sym_function_definition 19 0 990]),
    (6451, [ENTRY 1 False, REDUCE sym_function_definition 19 0 991]),
    (6453, [ENTRY 1 True, REDUCE sym_function_definition 19 0 991]),
    (6455, [ENTRY 1 False, REDUCE sym_function_definition 19 0 992]),
    (6457, [ENTRY 1 True, REDUCE sym_function_definition 19 0 992]),
    (6459, [ENTRY 1 False, REDUCE sym_function_definition 19 0 993]),
    (6461, [ENTRY 1 True, REDUCE sym_function_definition 19 0 993]),
    (6463, [ENTRY 1 False, REDUCE sym_function_definition 19 0 994]),
    (6465, [ENTRY 1 True, REDUCE sym_function_definition 19 0 994]),
    (6467, [ENTRY 1 False, REDUCE sym_function_definition 19 0 995]),
    (6469, [ENTRY 1 True, REDUCE sym_function_definition 19 0 995]),
    (6471, [ENTRY 1 False, REDUCE sym_function_definition 19 0 996]),
    (6473, [ENTRY 1 True, REDUCE sym_function_definition 19 0 996]),
    (6475, [ENTRY 1 False, REDUCE sym_function_definition 19 0 997]),
    (6477, [ENTRY 1 True, REDUCE sym_function_definition 19 0 997]),
    (6479, [ENTRY 1 False, REDUCE sym_function_definition 20 0 998]),
    (6481, [ENTRY 1 True, REDUCE sym_function_definition 20 0 998]),
    (6483, [ENTRY 1 True, REDUCE sym_function_definition 6 0 110]),
    (6485, [ENTRY 1 False, REDUCE sym_function_definition 6 0 110]),
    (6487, [ENTRY 1 True, REDUCE sym_function_definition 6 0 111]),
    (6489, [ENTRY 1 False, REDUCE sym_function_definition 6 0 111]),
    (6491, [ENTRY 1 False, REDUCE sym_decorated_definition 3 0 28]),
    (6493, [ENTRY 1 True, REDUCE sym_decorated_definition 3 0 28]),
    (6495, [ENTRY 1 True, REDUCE sym_function_definition 10 0 332]),
    (6497, [ENTRY 1 False, REDUCE sym_function_definition 10 0 332]),
    (6499, [ENTRY 1 True, REDUCE sym_function_definition 11 0 373]),
    (6501, [ENTRY 1 False, REDUCE sym_function_definition 11 0 373]),
    (6503, [ENTRY 1 False, REDUCE sym_extension_definition 4 0 42]),
    (6505, [ENTRY 1 True, REDUCE sym_extension_definition 4 0 42]),
    (6507, [ENTRY 1 False, REDUCE sym__match_block 1 0 0]),
    (6509, [ENTRY 1 True, REDUCE sym__match_block 1 0 0]),
    (6511, [ENTRY 1 False, REDUCE sym_match_statement 4 0 45]),
    (6513, [ENTRY 1 True, REDUCE sym_match_statement 4 0 45]),
    (6515, [ENTRY 1 True, REDUCE sym_function_definition 10 0 330]),
    (6517, [ENTRY 1 False, REDUCE sym_function_definition 10 0 330]),
    (6519, [ENTRY 1 False, REDUCE sym_with_statement 4 0 49]),
    (6521, [ENTRY 1 True, REDUCE sym_with_statement 4 0 49]),
    (6523, [ENTRY 1 True, REDUCE sym_match_statement 6 0 104]),
    (6525, [ENTRY 1 False, REDUCE sym_match_statement 6 0 104]),
    (6527, [ENTRY 1 False, REDUCE sym_class_definition 4 0 42]),
    (6529, [ENTRY 1 True, REDUCE sym_class_definition 4 0 42]),
    (6531, [ENTRY 1 True, REDUCE sym_if_statement 6 0 101]),
    (6533, [ENTRY 1 False, REDUCE sym_if_statement 6 0 101]),
    (6535, [ENTRY 1 True, REDUCE sym_function_definition 11 0 374]),
    (6537, [ENTRY 1 False, REDUCE sym_function_definition 11 0 374]),
    (6539, [ENTRY 1 True, REDUCE sym_function_definition 6 0 112]),
    (6541, [ENTRY 1 False, REDUCE sym_function_definition 6 0 112]),
    (6543, [ENTRY 1 False, REDUCE sym_extension_definition 5 0 60]),
    (6545, [ENTRY 1 True, REDUCE sym_extension_definition 5 0 60]),
    (6547, [ENTRY 1 False, REDUCE sym_mlir_region 5 0 61]),
    (6549, [ENTRY 1 True, REDUCE sym_mlir_region 5 0 61]),
    (6551, [ENTRY 1 True, REDUCE sym_function_definition 11 0 375]),
    (6553, [ENTRY 1 False, REDUCE sym_function_definition 11 0 375]),
    (6555, [ENTRY 1 True, REDUCE sym_function_definition 11 0 376]),
    (6557, [ENTRY 1 False, REDUCE sym_function_definition 11 0 376]),
    (6559, [ENTRY 1 False, REDUCE sym_if_statement 5 0 63]),
    (6561, [ENTRY 1 True, REDUCE sym_if_statement 5 0 63]),
    (6563, [ENTRY 1 True, REDUCE sym_function_definition 11 0 377]),
    (6565, [ENTRY 1 False, REDUCE sym_function_definition 11 0 377]),
    (6567, [ENTRY 1 True, REDUCE sym_function_definition 11 0 378]),
    (6569, [ENTRY 1 False, REDUCE sym_function_definition 11 0 378]),
    (6571, [ENTRY 1 False, REDUCE sym_match_statement 5 0 66]),
    (6573, [ENTRY 1 True, REDUCE sym_match_statement 5 0 66]),
    (6575, [ENTRY 1 True, REDUCE sym_function_definition 11 0 379]),
    (6577, [ENTRY 1 False, REDUCE sym_function_definition 11 0 379]),
    (6579, [ENTRY 1 False, REDUCE sym__match_block 2 0 0]),
    (6581, [ENTRY 1 True, REDUCE sym__match_block 2 0 0]),
    (6583, [ENTRY 1 False, REDUCE sym_match_statement 5 0 67]),
    (6585, [ENTRY 1 True, REDUCE sym_match_statement 5 0 67]),
    (6587, [ENTRY 1 False, REDUCE sym_with_statement 5 0 68]),
    (6589, [ENTRY 1 True, REDUCE sym_with_statement 5 0 68]),
    (6591, [ENTRY 1 True, REDUCE sym_function_definition 11 0 380]),
    (6593, [ENTRY 1 False, REDUCE sym_function_definition 11 0 380]),
    (6595, [ENTRY 1 True, REDUCE sym_function_definition 11 0 381]),
    (6597, [ENTRY 1 False, REDUCE sym_function_definition 11 0 381]),
    (6599, [ENTRY 1 False, REDUCE sym_while_statement 5 0 69]),
    (6601, [ENTRY 1 True, REDUCE sym_while_statement 5 0 69]),
    (6603, [ENTRY 1 True, REDUCE sym_function_definition 11 0 382]),
    (6605, [ENTRY 1 False, REDUCE sym_function_definition 11 0 382]),
    (6607, [ENTRY 1 False, REDUCE sym_with_statement 5 0 72]),
    (6609, [ENTRY 1 True, REDUCE sym_with_statement 5 0 72]),
    (6611, [ENTRY 1 False, REDUCE sym_function_definition 5 0 61]),
    (6613, [ENTRY 1 True, REDUCE sym_function_definition 5 0 61]),
    (6615, [ENTRY 1 True, REDUCE sym_function_definition 10 0 339]),
    (6617, [ENTRY 1 False, REDUCE sym_function_definition 10 0 339]),
    (6619, [ENTRY 1 False, REDUCE sym_class_definition 5 0 60]),
    (6621, [ENTRY 1 True, REDUCE sym_class_definition 5 0 60]),
    (6623, [ENTRY 1 True, REDUCE sym_function_definition 11 0 383]),
    (6625, [ENTRY 1 False, REDUCE sym_function_definition 11 0 383]),
    (6627, [ENTRY 1 False, REDUCE sym_class_definition 5 0 78]),
    (6629, [ENTRY 1 True, REDUCE sym_class_definition 5 0 78]),
    (6631, [ENTRY 1 False, REDUCE sym_class_definition 5 0 79]),
    (6633, [ENTRY 1 True, REDUCE sym_class_definition 5 0 79]),
    (6635, [ENTRY 1 False, REDUCE sym_trait_definition 5 0 60]),
    (6637, [ENTRY 1 True, REDUCE sym_trait_definition 5 0 60]),
    (6639, [ENTRY 1 True, REDUCE sym_function_definition 11 0 384]),
    (6641, [ENTRY 1 False, REDUCE sym_function_definition 11 0 384]),
    (6643, [ENTRY 1 True, REDUCE sym_function_definition 11 0 385]),
    (6645, [ENTRY 1 False, REDUCE sym_function_definition 11 0 385]),
    (6647, [ENTRY 1 True, REDUCE sym_function_definition 11 0 386]),
    (6649, [ENTRY 1 False, REDUCE sym_function_definition 11 0 386]),
    (6651, [ENTRY 1 True, REDUCE sym_function_definition 11 0 387]),
    (6653, [ENTRY 1 False, REDUCE sym_function_definition 11 0 387]),
    (6655, [ENTRY 1 True, REDUCE sym_function_definition 11 0 388]),
    (6657, [ENTRY 1 False, REDUCE sym_function_definition 11 0 388]),
    (6659, [ENTRY 1 False, REDUCE sym_mlir_region 6 0 98]),
    (6661, [ENTRY 1 True, REDUCE sym_mlir_region 6 0 98]),
    (6663, [ENTRY 1 False, REDUCE sym_if_statement 6 0 99]),
    (6665, [ENTRY 1 True, REDUCE sym_if_statement 6 0 99]),
    (6667, [ENTRY 1 True, REDUCE sym_function_definition 10 0 333]),
    (6669, [ENTRY 1 False, REDUCE sym_function_definition 10 0 333]),
    (6671, [ENTRY 1 False, REDUCE sym__match_block 3 0 103]),
    (6673, [ENTRY 1 True, REDUCE sym__match_block 3 0 103]),
    (6675, [ENTRY 1 True, REDUCE sym_function_definition 11 0 389]),
    (6677, [ENTRY 1 False, REDUCE sym_function_definition 11 0 389]),
    (6679, [ENTRY 1 True, REDUCE sym_function_definition 11 0 390]),
    (6681, [ENTRY 1 False, REDUCE sym_function_definition 11 0 390]),
    (6683, [ENTRY 1 True, REDUCE sym_class_definition 6 0 121]),
    (6685, [ENTRY 1 False, REDUCE sym_class_definition 6 0 121]),
    (6687, [ENTRY 1 True, REDUCE sym_class_definition 6 0 122]),
    (6689, [ENTRY 1 False, REDUCE sym_class_definition 6 0 122])]"

definition parse_actions_22 :: "(nat \<times> TSParseActionEntry list) list" where "parse_actions_22 = [
    (6691, [ENTRY 1 True, REDUCE sym_function_definition 11 0 391]),
    (6693, [ENTRY 1 False, REDUCE sym_function_definition 11 0 391]),
    (6695, [ENTRY 1 True, REDUCE sym_class_definition 6 0 123]),
    (6697, [ENTRY 1 False, REDUCE sym_class_definition 6 0 123]),
    (6699, [ENTRY 1 False, REDUCE sym_with_statement 6 0 105]),
    (6701, [ENTRY 1 True, REDUCE sym_with_statement 6 0 105]),
    (6703, [ENTRY 1 False, REDUCE sym_function_definition 6 0 106]),
    (6705, [ENTRY 1 True, REDUCE sym_function_definition 6 0 106]),
    (6707, [ENTRY 1 False, REDUCE sym_while_statement 6 0 108]),
    (6709, [ENTRY 1 True, REDUCE sym_while_statement 6 0 108]),
    (6711, [ENTRY 1 False, REDUCE sym_finally_clause 3 0 109]),
    (6713, [ENTRY 1 True, REDUCE sym_finally_clause 3 0 109]),
    (6715, [ENTRY 1 True, REDUCE sym_function_definition 11 0 392]),
    (6717, [ENTRY 1 False, REDUCE sym_function_definition 11 0 392]),
    (6719, [ENTRY 1 True, REDUCE sym_function_definition 11 0 393]),
    (6721, [ENTRY 1 False, REDUCE sym_function_definition 11 0 393]),
    (6723, [ENTRY 1 False, REDUCE sym_try_statement 6 0 48]),
    (6725, [ENTRY 1 True, REDUCE sym_try_statement 6 0 48]),
    (6727, [ENTRY 1 False, REDUCE sym_function_definition 6 0 98]),
    (6729, [ENTRY 1 True, REDUCE sym_function_definition 6 0 98]),
    (6731, [ENTRY 1 True, REDUCE sym_trait_definition 6 0 124]),
    (6733, [ENTRY 1 False, REDUCE sym_trait_definition 6 0 124]),
    (6735, [ENTRY 1 True, REDUCE sym_function_definition 10 0 340]),
    (6737, [ENTRY 1 False, REDUCE sym_function_definition 10 0 340]),
    (6739, [ENTRY 1 True, REDUCE sym_argument_list 5 0 0]),
    (6741, [ENTRY 1 False, REDUCE sym_argument_list 5 0 0]),
    (6743, [ENTRY 1 True, REDUCE sym_function_definition 11 0 394]),
    (6745, [ENTRY 1 False, REDUCE sym_function_definition 11 0 394]),
    (6747, [ENTRY 1 False, REDUCE sym_if_statement 7 0 134]),
    (6749, [ENTRY 1 True, REDUCE sym_if_statement 7 0 134]),
    (6751, [ENTRY 1 True, REDUCE sym_function_definition 11 0 395]),
    (6753, [ENTRY 1 False, REDUCE sym_function_definition 11 0 395]),
    (6755, [ENTRY 1 False, REDUCE sym_function_definition 7 0 136]),
    (6757, [ENTRY 1 True, REDUCE sym_function_definition 7 0 136]),
    (6759, [ENTRY 1 False, REDUCE sym_function_definition 7 0 137]),
    (6761, [ENTRY 1 True, REDUCE sym_function_definition 7 0 137]),
    (6763, [ENTRY 1 False, REDUCE sym_function_definition 7 0 138]),
    (6765, [ENTRY 1 True, REDUCE sym_function_definition 7 0 138]),
    (6767, [ENTRY 1 True, REDUCE sym_argument_list 5 0 36]),
    (6769, [ENTRY 1 False, REDUCE sym_argument_list 5 0 36]),
    (6771, [ENTRY 1 True, REDUCE sym_function_definition 11 0 396]),
    (6773, [ENTRY 1 False, REDUCE sym_function_definition 11 0 396]),
    (6775, [ENTRY 1 False, REDUCE sym_function_definition 7 0 139]),
    (6777, [ENTRY 1 True, REDUCE sym_function_definition 7 0 139]),
    (6779, [ENTRY 1 False, REDUCE sym_for_statement 7 0 140]),
    (6781, [ENTRY 1 True, REDUCE sym_for_statement 7 0 140]),
    (6783, [ENTRY 1 True, REDUCE sym_function_definition 10 0 334]),
    (6785, [ENTRY 1 False, REDUCE sym_function_definition 10 0 334]),
    (6787, [ENTRY 1 False, REDUCE sym_finally_clause 4 0 0]),
    (6789, [ENTRY 1 True, REDUCE sym_finally_clause 4 0 0]),
    (6791, [ENTRY 1 False, REDUCE sym_try_statement 7 0 71]),
    (6793, [ENTRY 1 True, REDUCE sym_try_statement 7 0 71]),
    (6795, [ENTRY 1 False, REDUCE sym_function_definition 7 0 143]),
    (6797, [ENTRY 1 True, REDUCE sym_function_definition 7 0 143]),
    (6799, [ENTRY 1 False, REDUCE sym_function_definition 7 0 144]),
    (6801, [ENTRY 1 True, REDUCE sym_function_definition 7 0 144]),
    (6803, [ENTRY 1 False, REDUCE sym_function_definition 7 0 145]),
    (6805, [ENTRY 1 True, REDUCE sym_function_definition 7 0 145]),
    (6807, [ENTRY 1 False, REDUCE sym_function_definition 7 0 146]),
    (6809, [ENTRY 1 True, REDUCE sym_function_definition 7 0 146]),
    (6811, [ENTRY 1 False, REDUCE sym_function_definition 7 0 147]),
    (6813, [ENTRY 1 True, REDUCE sym_function_definition 7 0 147]),
    (6815, [ENTRY 1 True, REDUCE sym_function_definition 11 0 397]),
    (6817, [ENTRY 1 False, REDUCE sym_function_definition 11 0 397]),
    (6819, [ENTRY 1 True, REDUCE sym_function_definition 11 0 398]),
    (6821, [ENTRY 1 False, REDUCE sym_function_definition 11 0 398]),
    (6823, [ENTRY 1 False, REDUCE sym_function_definition 7 0 148]),
    (6825, [ENTRY 1 True, REDUCE sym_function_definition 7 0 148]),
    (6827, [ENTRY 1 False, REDUCE sym_function_definition 7 0 149]),
    (6829, [ENTRY 1 True, REDUCE sym_function_definition 7 0 149]),
    (6831, [ENTRY 1 True, REDUCE sym_function_definition 11 0 399]),
    (6833, [ENTRY 1 False, REDUCE sym_function_definition 11 0 399]),
    (6835, [ENTRY 1 False, REDUCE sym_function_definition 7 0 150]),
    (6837, [ENTRY 1 True, REDUCE sym_function_definition 7 0 150]),
    (6839, [ENTRY 1 True, REDUCE sym_function_definition 11 0 400]),
    (6841, [ENTRY 1 False, REDUCE sym_function_definition 11 0 400]),
    (6843, [ENTRY 1 False, REDUCE sym_function_definition 7 0 151]),
    (6845, [ENTRY 1 True, REDUCE sym_function_definition 7 0 151]),
    (6847, [ENTRY 1 True, REDUCE sym_function_definition 11 0 401]),
    (6849, [ENTRY 1 False, REDUCE sym_function_definition 11 0 401]),
    (6851, [ENTRY 1 True, REDUCE sym_function_definition 11 0 402]),
    (6853, [ENTRY 1 False, REDUCE sym_function_definition 11 0 402]),
    (6855, [ENTRY 1 True, REDUCE sym_function_definition 10 0 335]),
    (6857, [ENTRY 1 False, REDUCE sym_function_definition 10 0 335]),
    (6859, [ENTRY 1 True, REDUCE sym_function_definition 10 0 338]),
    (6861, [ENTRY 1 False, REDUCE sym_function_definition 10 0 338]),
    (6863, [ENTRY 1 True, REDUCE sym_function_definition 11 0 403]),
    (6865, [ENTRY 1 False, REDUCE sym_function_definition 11 0 403]),
    (6867, [ENTRY 1 True, REDUCE sym_function_definition 10 0 341]),
    (6869, [ENTRY 1 False, REDUCE sym_function_definition 10 0 341]),
    (6871, [ENTRY 1 True, REDUCE sym_function_definition 10 0 342]),
    (6873, [ENTRY 1 False, REDUCE sym_function_definition 10 0 342]),
    (6875, [ENTRY 1 False, REDUCE sym_class_definition 7 0 163]),
    (6877, [ENTRY 1 True, REDUCE sym_class_definition 7 0 163]),
    (6879, [ENTRY 1 True, REDUCE sym_function_definition 11 0 404]),
    (6881, [ENTRY 1 False, REDUCE sym_function_definition 11 0 404]),
    (6883, [ENTRY 1 False, REDUCE sym_for_statement 8 0 172]),
    (6885, [ENTRY 1 True, REDUCE sym_for_statement 8 0 172]),
    (6887, [ENTRY 1 False, REDUCE sym_function_definition 8 0 175]),
    (6889, [ENTRY 1 True, REDUCE sym_function_definition 8 0 175]),
    (6891, [ENTRY 1 False, REDUCE sym_function_definition 8 0 176]),
    (6893, [ENTRY 1 True, REDUCE sym_function_definition 8 0 176]),
    (6895, [ENTRY 1 False, REDUCE sym_function_definition 8 0 177]),
    (6897, [ENTRY 1 True, REDUCE sym_function_definition 8 0 177]),
    (6899, [ENTRY 1 False, REDUCE sym_function_definition 8 0 178]),
    (6901, [ENTRY 1 True, REDUCE sym_function_definition 8 0 178]),
    (6903, [ENTRY 1 True, REDUCE sym_function_definition 11 0 405]),
    (6905, [ENTRY 1 False, REDUCE sym_function_definition 11 0 405]),
    (6907, [ENTRY 1 False, REDUCE sym_function_definition 8 0 179]),
    (6909, [ENTRY 1 True, REDUCE sym_function_definition 8 0 179]),
    (6911, [ENTRY 1 True, REDUCE sym_function_definition 11 0 406]),
    (6913, [ENTRY 1 False, REDUCE sym_function_definition 11 0 406]),
    (6915, [ENTRY 1 False, REDUCE sym_function_definition 8 0 180]),
    (6917, [ENTRY 1 True, REDUCE sym_function_definition 8 0 180]),
    (6919, [ENTRY 1 False, REDUCE sym_function_definition 8 0 181]),
    (6921, [ENTRY 1 True, REDUCE sym_function_definition 8 0 181]),
    (6923, [ENTRY 1 True, REDUCE sym_function_definition 11 0 407]),
    (6925, [ENTRY 1 False, REDUCE sym_function_definition 11 0 407]),
    (6927, [ENTRY 1 False, REDUCE sym_function_definition 8 0 182]),
    (6929, [ENTRY 1 True, REDUCE sym_function_definition 8 0 182]),
    (6931, [ENTRY 1 False, REDUCE sym_function_definition 8 0 183]),
    (6933, [ENTRY 1 True, REDUCE sym_function_definition 8 0 183]),
    (6935, [ENTRY 1 False, REDUCE sym_for_statement 8 0 184]),
    (6937, [ENTRY 1 True, REDUCE sym_for_statement 8 0 184]),
    (6939, [ENTRY 1 False, REDUCE sym_function_definition 8 0 185]),
    (6941, [ENTRY 1 True, REDUCE sym_function_definition 8 0 185]),
    (6943, [ENTRY 1 False, REDUCE sym_function_definition 8 0 186]),
    (6945, [ENTRY 1 True, REDUCE sym_function_definition 8 0 186]),
    (6947, [ENTRY 1 False, REDUCE sym_function_definition 8 0 187]),
    (6949, [ENTRY 1 True, REDUCE sym_function_definition 8 0 187]),
    (6951, [ENTRY 1 False, REDUCE sym_function_definition 8 0 188]),
    (6953, [ENTRY 1 True, REDUCE sym_function_definition 8 0 188]),
    (6955, [ENTRY 1 False, REDUCE sym_function_definition 8 0 189]),
    (6957, [ENTRY 1 True, REDUCE sym_function_definition 8 0 189]),
    (6959, [ENTRY 1 False, REDUCE sym_function_definition 8 0 190]),
    (6961, [ENTRY 1 True, REDUCE sym_function_definition 8 0 190]),
    (6963, [ENTRY 1 True, REDUCE sym_function_definition 11 0 408]),
    (6965, [ENTRY 1 False, REDUCE sym_function_definition 11 0 408]),
    (6967, [ENTRY 1 False, REDUCE sym_function_definition 8 0 191]),
    (6969, [ENTRY 1 True, REDUCE sym_function_definition 8 0 191]),
    (6971, [ENTRY 1 True, REDUCE sym_function_definition 11 0 409]),
    (6973, [ENTRY 1 False, REDUCE sym_function_definition 11 0 409]),
    (6975, [ENTRY 1 False, REDUCE sym_function_definition 8 0 192]),
    (6977, [ENTRY 1 True, REDUCE sym_function_definition 8 0 192]),
    (6979, [ENTRY 1 False, REDUCE sym_function_definition 8 0 193]),
    (6981, [ENTRY 1 True, REDUCE sym_function_definition 8 0 193]),
    (6983, [ENTRY 1 True, REDUCE sym_function_definition 11 0 410]),
    (6985, [ENTRY 1 False, REDUCE sym_function_definition 11 0 410]),
    (6987, [ENTRY 1 False, REDUCE sym_function_definition 8 0 194]),
    (6989, [ENTRY 1 True, REDUCE sym_function_definition 8 0 194])]"

definition parse_actions_23 :: "(nat \<times> TSParseActionEntry list) list" where "parse_actions_23 = [
    (6991, [ENTRY 1 False, REDUCE sym_function_definition 8 0 195]),
    (6993, [ENTRY 1 True, REDUCE sym_function_definition 8 0 195]),
    (6995, [ENTRY 1 False, REDUCE sym_function_definition 8 0 196]),
    (6997, [ENTRY 1 True, REDUCE sym_function_definition 8 0 196]),
    (6999, [ENTRY 1 False, REDUCE sym_function_definition 8 0 197]),
    (7001, [ENTRY 1 True, REDUCE sym_function_definition 8 0 197]),
    (7003, [ENTRY 1 False, REDUCE sym_function_definition 8 0 198]),
    (7005, [ENTRY 1 True, REDUCE sym_function_definition 8 0 198]),
    (7007, [ENTRY 1 False, REDUCE sym_function_definition 8 0 199]),
    (7009, [ENTRY 1 True, REDUCE sym_function_definition 8 0 199]),
    (7011, [ENTRY 1 False, REDUCE sym_function_definition 8 0 200]),
    (7013, [ENTRY 1 True, REDUCE sym_function_definition 8 0 200]),
    (7015, [ENTRY 1 True, REDUCE sym_function_definition 10 0 343]),
    (7017, [ENTRY 1 False, REDUCE sym_function_definition 10 0 343]),
    (7019, [ENTRY 1 True, REDUCE sym_decorated_definition 2 0 12]),
    (7021, [ENTRY 1 False, REDUCE sym_decorated_definition 2 0 12]),
    (7023, [ENTRY 1 True, REDUCE sym_function_definition 10 0 344]),
    (7025, [ENTRY 1 False, REDUCE sym_function_definition 10 0 344]),
    (7027, [ENTRY 1 True, REDUCE sym_function_definition 11 0 411]),
    (7029, [ENTRY 1 False, REDUCE sym_function_definition 11 0 411]),
    (7031, [ENTRY 1 True, REDUCE sym_function_definition 10 0 345]),
    (7033, [ENTRY 1 False, REDUCE sym_function_definition 10 0 345]),
    (7035, [ENTRY 1 True, REDUCE sym_function_definition 10 0 336]),
    (7037, [ENTRY 1 False, REDUCE sym_function_definition 10 0 336]),
    (7039, [ENTRY 1 True, REDUCE sym_function_definition 11 0 412]),
    (7041, [ENTRY 1 False, REDUCE sym_function_definition 11 0 412]),
    (7043, [ENTRY 1 True, REDUCE sym_function_definition 10 0 337]),
    (7045, [ENTRY 1 False, REDUCE sym_function_definition 10 0 337]),
    (7047, [ENTRY 1 False, REDUCE sym_for_statement 9 0 226]),
    (7049, [ENTRY 1 True, REDUCE sym_for_statement 9 0 226]),
    (7051, [ENTRY 1 False, REDUCE sym_for_statement 9 0 227]),
    (7053, [ENTRY 1 True, REDUCE sym_for_statement 9 0 227]),
    (7055, [ENTRY 1 True, REDUCE sym_function_definition 11 0 413]),
    (7057, [ENTRY 1 False, REDUCE sym_function_definition 11 0 413]),
    (7059, [ENTRY 1 True, REDUCE sym_function_definition 11 0 414]),
    (7061, [ENTRY 1 False, REDUCE sym_function_definition 11 0 414]),
    (7063, [ENTRY 1 True, REDUCE sym_function_definition 11 0 415]),
    (7065, [ENTRY 1 False, REDUCE sym_function_definition 11 0 415]),
    (7067, [ENTRY 1 False, REDUCE sym_function_definition 9 0 229]),
    (7069, [ENTRY 1 True, REDUCE sym_function_definition 9 0 229]),
    (7071, [ENTRY 1 False, REDUCE sym_function_definition 9 0 230]),
    (7073, [ENTRY 1 True, REDUCE sym_function_definition 9 0 230]),
    (7075, [ENTRY 1 False, REDUCE sym_function_definition 9 0 231]),
    (7077, [ENTRY 1 True, REDUCE sym_function_definition 9 0 231]),
    (7079, [ENTRY 1 False, REDUCE sym_function_definition 9 0 232]),
    (7081, [ENTRY 1 True, REDUCE sym_function_definition 9 0 232]),
    (7083, [ENTRY 1 False, REDUCE sym_function_definition 9 0 233]),
    (7085, [ENTRY 1 True, REDUCE sym_function_definition 9 0 233]),
    (7087, [ENTRY 1 False, REDUCE sym_function_definition 9 0 234]),
    (7089, [ENTRY 1 True, REDUCE sym_function_definition 9 0 234]),
    (7091, [ENTRY 1 False, REDUCE sym_function_definition 9 0 235]),
    (7093, [ENTRY 1 True, REDUCE sym_function_definition 9 0 235]),
    (7095, [ENTRY 1 False, REDUCE sym_function_definition 9 0 236]),
    (7097, [ENTRY 1 True, REDUCE sym_function_definition 9 0 236]),
    (7099, [ENTRY 1 True, REDUCE sym_function_definition 11 0 416]),
    (7101, [ENTRY 1 False, REDUCE sym_function_definition 11 0 416]),
    (7103, [ENTRY 1 True, REDUCE sym_function_definition 11 0 417]),
    (7105, [ENTRY 1 False, REDUCE sym_function_definition 11 0 417]),
    (7107, [ENTRY 1 False, REDUCE sym_function_definition 9 0 237]),
    (7109, [ENTRY 1 True, REDUCE sym_function_definition 9 0 237]),
    (7111, [ENTRY 1 False, REDUCE sym_function_definition 9 0 238]),
    (7113, [ENTRY 1 True, REDUCE sym_function_definition 9 0 238]),
    (7115, [ENTRY 1 True, REDUCE sym_function_definition 11 0 418]),
    (7117, [ENTRY 1 False, REDUCE sym_function_definition 11 0 418]),
    (7119, [ENTRY 1 True, REDUCE sym_function_definition 11 0 419]),
    (7121, [ENTRY 1 False, REDUCE sym_function_definition 11 0 419]),
    (7123, [ENTRY 1 False, REDUCE sym_function_definition 9 0 239]),
    (7125, [ENTRY 1 True, REDUCE sym_function_definition 9 0 239]),
    (7127, [ENTRY 1 False, REDUCE sym_function_definition 9 0 240]),
    (7129, [ENTRY 1 True, REDUCE sym_function_definition 9 0 240]),
    (7131, [ENTRY 1 True, REDUCE sym_function_definition 11 0 420]),
    (7133, [ENTRY 1 False, REDUCE sym_function_definition 11 0 420]),
    (7135, [ENTRY 1 False, REDUCE sym_function_definition 9 0 241]),
    (7137, [ENTRY 1 True, REDUCE sym_function_definition 9 0 241]),
    (7139, [ENTRY 1 False, REDUCE sym_function_definition 9 0 242]),
    (7141, [ENTRY 1 True, REDUCE sym_function_definition 9 0 242]),
    (7143, [ENTRY 1 False, REDUCE sym_function_definition 9 0 243]),
    (7145, [ENTRY 1 True, REDUCE sym_function_definition 9 0 243]),
    (7147, [ENTRY 1 True, REDUCE sym_function_definition 11 0 421]),
    (7149, [ENTRY 1 False, REDUCE sym_function_definition 11 0 421]),
    (7151, [ENTRY 1 False, REDUCE sym_function_definition 9 0 244]),
    (7153, [ENTRY 1 True, REDUCE sym_function_definition 9 0 244]),
    (7155, [ENTRY 1 False, REDUCE sym_comptime_statement 2 0 0]),
    (7157, [ENTRY 1 True, REDUCE sym_comptime_statement 2 0 0]),
    (7159, [ENTRY 1 False, REDUCE sym_function_definition 9 0 246]),
    (7161, [ENTRY 1 True, REDUCE sym_function_definition 9 0 246]),
    (7163, [ENTRY 1 False, REDUCE sym_function_definition 9 0 247]),
    (7165, [ENTRY 1 True, REDUCE sym_function_definition 9 0 247]),
    (7167, [ENTRY 1 False, REDUCE sym_function_definition 9 0 248]),
    (7169, [ENTRY 1 True, REDUCE sym_function_definition 9 0 248]),
    (7171, [ENTRY 1 False, REDUCE sym_function_definition 9 0 249]),
    (7173, [ENTRY 1 True, REDUCE sym_function_definition 9 0 249]),
    (7175, [ENTRY 1 False, REDUCE sym_function_definition 9 0 250]),
    (7177, [ENTRY 1 True, REDUCE sym_function_definition 9 0 250]),
    (7179, [ENTRY 1 False, REDUCE sym_function_definition 9 0 251]),
    (7181, [ENTRY 1 True, REDUCE sym_function_definition 9 0 251]),
    (7183, [ENTRY 1 False, REDUCE sym_function_definition 9 0 252]),
    (7185, [ENTRY 1 True, REDUCE sym_function_definition 9 0 252]),
    (7187, [ENTRY 1 False, REDUCE sym_function_definition 9 0 253]),
    (7189, [ENTRY 1 True, REDUCE sym_function_definition 9 0 253]),
    (7191, [ENTRY 1 False, REDUCE sym_function_definition 9 0 254]),
    (7193, [ENTRY 1 True, REDUCE sym_function_definition 9 0 254]),
    (7195, [ENTRY 1 False, REDUCE sym_function_definition 9 0 255]),
    (7197, [ENTRY 1 True, REDUCE sym_function_definition 9 0 255]),
    (7199, [ENTRY 1 True, REDUCE sym_function_definition 11 0 422]),
    (7201, [ENTRY 1 False, REDUCE sym_function_definition 11 0 422]),
    (7203, [ENTRY 1 False, REDUCE sym_function_definition 9 0 256]),
    (7205, [ENTRY 1 True, REDUCE sym_function_definition 9 0 256]),
    (7207, [ENTRY 1 True, REDUCE sym_function_definition 11 0 423]),
    (7209, [ENTRY 1 False, REDUCE sym_function_definition 11 0 423]),
    (7211, [ENTRY 1 True, REDUCE sym_function_definition 11 0 424]),
    (7213, [ENTRY 1 False, REDUCE sym_function_definition 11 0 424]),
    (7215, [ENTRY 1 True, REDUCE sym_function_definition 11 0 425]),
    (7217, [ENTRY 1 False, REDUCE sym_function_definition 11 0 425]),
    (7219, [ENTRY 1 True, REDUCE sym_function_definition 11 0 426]),
    (7221, [ENTRY 1 False, REDUCE sym_function_definition 11 0 426]),
    (7223, [ENTRY 1 False, REDUCE sym_function_definition 9 0 257]),
    (7225, [ENTRY 1 True, REDUCE sym_function_definition 9 0 257]),
    (7227, [ENTRY 1 False, REDUCE sym_function_definition 9 0 258]),
    (7229, [ENTRY 1 True, REDUCE sym_function_definition 9 0 258]),
    (7231, [ENTRY 1 False, REDUCE sym_function_definition 9 0 259]),
    (7233, [ENTRY 1 True, REDUCE sym_function_definition 9 0 259]),
    (7235, [ENTRY 1 True, REDUCE sym_function_definition 11 0 427]),
    (7237, [ENTRY 1 False, REDUCE sym_function_definition 11 0 427]),
    (7239, [ENTRY 1 False, REDUCE sym_function_definition 9 0 260]),
    (7241, [ENTRY 1 True, REDUCE sym_function_definition 9 0 260]),
    (7243, [ENTRY 1 True, REDUCE sym_function_definition 11 0 428]),
    (7245, [ENTRY 1 False, REDUCE sym_function_definition 11 0 428]),
    (7247, [ENTRY 1 False, REDUCE sym_function_definition 9 0 261]),
    (7249, [ENTRY 1 True, REDUCE sym_function_definition 9 0 261]),
    (7251, [ENTRY 1 False, REDUCE sym_function_definition 9 0 262]),
    (7253, [ENTRY 1 True, REDUCE sym_function_definition 9 0 262]),
    (7255, [ENTRY 1 False, REDUCE sym_function_definition 9 0 263]),
    (7257, [ENTRY 1 True, REDUCE sym_function_definition 9 0 263]),
    (7259, [ENTRY 1 True, REDUCE sym_function_definition 11 0 429]),
    (7261, [ENTRY 1 False, REDUCE sym_function_definition 11 0 429]),
    (7263, [ENTRY 1 False, REDUCE sym_function_definition 9 0 264]),
    (7265, [ENTRY 1 True, REDUCE sym_function_definition 9 0 264]),
    (7267, [ENTRY 1 False, REDUCE sym_function_definition 9 0 265]),
    (7269, [ENTRY 1 True, REDUCE sym_function_definition 9 0 265]),
    (7271, [ENTRY 1 True, REDUCE sym_function_definition 11 0 430]),
    (7273, [ENTRY 1 False, REDUCE sym_function_definition 11 0 430]),
    (7275, [ENTRY 1 True, REDUCE sym_function_definition 11 0 431]),
    (7277, [ENTRY 1 False, REDUCE sym_function_definition 11 0 431]),
    (7279, [ENTRY 1 False, REDUCE sym_function_definition 9 0 266]),
    (7281, [ENTRY 1 True, REDUCE sym_function_definition 9 0 266]),
    (7283, [ENTRY 1 False, REDUCE sym_function_definition 9 0 267]),
    (7285, [ENTRY 1 True, REDUCE sym_function_definition 9 0 267]),
    (7287, [ENTRY 1 False, REDUCE sym_function_definition 9 0 268]),
    (7289, [ENTRY 1 True, REDUCE sym_function_definition 9 0 268])]"

definition parse_actions_24 :: "(nat \<times> TSParseActionEntry list) list" where "parse_actions_24 = [
    (7291, [ENTRY 1 True, REDUCE sym_function_definition 11 0 432]),
    (7293, [ENTRY 1 False, REDUCE sym_function_definition 11 0 432]),
    (7295, [ENTRY 1 True, REDUCE sym_function_definition 11 0 433]),
    (7297, [ENTRY 1 False, REDUCE sym_function_definition 11 0 433]),
    (7299, [ENTRY 1 False, REDUCE sym_for_statement 10 0 293]),
    (7301, [ENTRY 1 True, REDUCE sym_for_statement 10 0 293]),
    (7303, [ENTRY 1 False, REDUCE sym_function_definition 10 0 294]),
    (7305, [ENTRY 1 True, REDUCE sym_function_definition 10 0 294]),
    (7307, [ENTRY 1 True, REDUCE sym_function_definition 12 0 456]),
    (7309, [ENTRY 1 False, REDUCE sym_function_definition 12 0 456]),
    (7311, [ENTRY 1 False, REDUCE sym_function_definition 10 0 295]),
    (7313, [ENTRY 1 True, REDUCE sym_function_definition 10 0 295]),
    (7315, [ENTRY 1 True, REDUCE sym_function_definition 12 0 457]),
    (7317, [ENTRY 1 False, REDUCE sym_function_definition 12 0 457]),
    (7319, [ENTRY 1 True, REDUCE sym_function_definition 12 0 458]),
    (7321, [ENTRY 1 False, REDUCE sym_function_definition 12 0 458]),
    (7323, [ENTRY 1 True, REDUCE sym_function_definition 12 0 459]),
    (7325, [ENTRY 1 False, REDUCE sym_function_definition 12 0 459]),
    (7327, [ENTRY 1 False, REDUCE sym_function_definition 10 0 296]),
    (7329, [ENTRY 1 True, REDUCE sym_function_definition 10 0 296]),
    (7331, [ENTRY 1 True, REDUCE sym_function_definition 12 0 460]),
    (7333, [ENTRY 1 False, REDUCE sym_function_definition 12 0 460]),
    (7335, [ENTRY 1 False, REDUCE sym_function_definition 10 0 297]),
    (7337, [ENTRY 1 True, REDUCE sym_function_definition 10 0 297]),
    (7339, [ENTRY 1 False, REDUCE sym_function_definition 10 0 298]),
    (7341, [ENTRY 1 True, REDUCE sym_function_definition 10 0 298]),
    (7343, [ENTRY 1 False, REDUCE sym_function_definition 10 0 299]),
    (7345, [ENTRY 1 True, REDUCE sym_function_definition 10 0 299]),
    (7347, [ENTRY 1 False, REDUCE sym_function_definition 10 0 300]),
    (7349, [ENTRY 1 True, REDUCE sym_function_definition 10 0 300]),
    (7351, [ENTRY 1 False, REDUCE sym_function_definition 10 0 301]),
    (7353, [ENTRY 1 True, REDUCE sym_function_definition 10 0 301]),
    (7355, [ENTRY 1 True, REDUCE sym_function_definition 12 0 461]),
    (7357, [ENTRY 1 False, REDUCE sym_function_definition 12 0 461]),
    (7359, [ENTRY 1 True, REDUCE sym_function_definition 12 0 462]),
    (7361, [ENTRY 1 False, REDUCE sym_function_definition 12 0 462]),
    (7363, [ENTRY 1 False, REDUCE sym_function_definition 10 0 302]),
    (7365, [ENTRY 1 True, REDUCE sym_function_definition 10 0 302]),
    (7367, [ENTRY 1 True, REDUCE sym_function_definition 12 0 463]),
    (7369, [ENTRY 1 False, REDUCE sym_function_definition 12 0 463]),
    (7371, [ENTRY 1 False, REDUCE sym_function_definition 10 0 303]),
    (7373, [ENTRY 1 True, REDUCE sym_function_definition 10 0 303]),
    (7375, [ENTRY 1 False, REDUCE sym_function_definition 10 0 304]),
    (7377, [ENTRY 1 True, REDUCE sym_function_definition 10 0 304]),
    (7379, [ENTRY 1 True, REDUCE sym_function_definition 12 0 464]),
    (7381, [ENTRY 1 False, REDUCE sym_function_definition 12 0 464]),
    (7383, [ENTRY 1 False, REDUCE sym_function_definition 10 0 305]),
    (7385, [ENTRY 1 True, REDUCE sym_function_definition 10 0 305]),
    (7387, [ENTRY 1 False, REDUCE sym_function_definition 10 0 306]),
    (7389, [ENTRY 1 True, REDUCE sym_function_definition 10 0 306]),
    (7391, [ENTRY 1 True, REDUCE sym_function_definition 12 0 465]),
    (7393, [ENTRY 1 False, REDUCE sym_function_definition 12 0 465]),
    (7395, [ENTRY 1 True, REDUCE sym_function_definition 12 0 466]),
    (7397, [ENTRY 1 False, REDUCE sym_function_definition 12 0 466]),
    (7399, [ENTRY 1 False, REDUCE sym_function_definition 10 0 307]),
    (7401, [ENTRY 1 True, REDUCE sym_function_definition 10 0 307]),
    (7403, [ENTRY 1 False, REDUCE sym_function_definition 10 0 308]),
    (7405, [ENTRY 1 True, REDUCE sym_function_definition 10 0 308]),
    (7407, [ENTRY 1 True, REDUCE sym_function_definition 12 0 467]),
    (7409, [ENTRY 1 False, REDUCE sym_function_definition 12 0 467]),
    (7411, [ENTRY 1 False, REDUCE sym_function_definition 10 0 309]),
    (7413, [ENTRY 1 True, REDUCE sym_function_definition 10 0 309]),
    (7415, [ENTRY 1 False, REDUCE sym_function_definition 10 0 310]),
    (7417, [ENTRY 1 True, REDUCE sym_function_definition 10 0 310]),
    (7419, [ENTRY 1 False, REDUCE sym_function_definition 10 0 311]),
    (7421, [ENTRY 1 True, REDUCE sym_function_definition 10 0 311]),
    (7423, [ENTRY 1 False, REDUCE sym_function_definition 10 0 312]),
    (7425, [ENTRY 1 True, REDUCE sym_function_definition 10 0 312]),
    (7427, [ENTRY 1 True, REDUCE sym_function_definition 12 0 468]),
    (7429, [ENTRY 1 False, REDUCE sym_function_definition 12 0 468]),
    (7431, [ENTRY 1 False, REDUCE sym_function_definition 10 0 313]),
    (7433, [ENTRY 1 True, REDUCE sym_function_definition 10 0 313]),
    (7435, [ENTRY 1 True, REDUCE sym_function_definition 12 0 469]),
    (7437, [ENTRY 1 False, REDUCE sym_function_definition 12 0 469]),
    (7439, [ENTRY 1 True, REDUCE sym_function_definition 12 0 470]),
    (7441, [ENTRY 1 False, REDUCE sym_function_definition 12 0 470]),
    (7443, [ENTRY 1 True, REDUCE sym_function_definition 12 0 471]),
    (7445, [ENTRY 1 False, REDUCE sym_function_definition 12 0 471]),
    (7447, [ENTRY 1 True, REDUCE sym_function_definition 12 0 472]),
    (7449, [ENTRY 1 False, REDUCE sym_function_definition 12 0 472]),
    (7451, [ENTRY 1 False, REDUCE sym_function_definition 10 0 314]),
    (7453, [ENTRY 1 True, REDUCE sym_function_definition 10 0 314]),
    (7455, [ENTRY 1 True, REDUCE sym_function_definition 12 0 473]),
    (7457, [ENTRY 1 False, REDUCE sym_function_definition 12 0 473]),
    (7459, [ENTRY 1 True, REDUCE sym_function_definition 12 0 474]),
    (7461, [ENTRY 1 False, REDUCE sym_function_definition 12 0 474]),
    (7463, [ENTRY 1 True, REDUCE sym_function_definition 12 0 475]),
    (7465, [ENTRY 1 False, REDUCE sym_function_definition 12 0 475]),
    (7467, [ENTRY 1 True, REDUCE sym_function_definition 12 0 476]),
    (7469, [ENTRY 1 False, REDUCE sym_function_definition 12 0 476]),
    (7471, [ENTRY 1 True, REDUCE sym_function_definition 12 0 477]),
    (7473, [ENTRY 1 False, REDUCE sym_function_definition 12 0 477]),
    (7475, [ENTRY 1 True, REDUCE sym_function_definition 12 0 478]),
    (7477, [ENTRY 1 False, REDUCE sym_function_definition 12 0 478]),
    (7479, [ENTRY 1 False, REDUCE sym_function_definition 10 0 315]),
    (7481, [ENTRY 1 True, REDUCE sym_function_definition 10 0 315]),
    (7483, [ENTRY 1 False, REDUCE sym_function_definition 10 0 316]),
    (7485, [ENTRY 1 True, REDUCE sym_function_definition 10 0 316]),
    (7487, [ENTRY 1 True, REDUCE sym_function_definition 12 0 479]),
    (7489, [ENTRY 1 False, REDUCE sym_function_definition 12 0 479]),
    (7491, [ENTRY 1 True, REDUCE sym_function_definition 12 0 480]),
    (7493, [ENTRY 1 False, REDUCE sym_function_definition 12 0 480]),
    (7495, [ENTRY 1 True, REDUCE sym_function_definition 12 0 481]),
    (7497, [ENTRY 1 False, REDUCE sym_function_definition 12 0 481]),
    (7499, [ENTRY 1 True, REDUCE sym_function_definition 12 0 482]),
    (7501, [ENTRY 1 False, REDUCE sym_function_definition 12 0 482]),
    (7503, [ENTRY 1 True, REDUCE sym_function_definition 12 0 483]),
    (7505, [ENTRY 1 False, REDUCE sym_function_definition 12 0 483]),
    (7507, [ENTRY 1 True, REDUCE sym_function_definition 12 0 484]),
    (7509, [ENTRY 1 False, REDUCE sym_function_definition 12 0 484]),
    (7511, [ENTRY 1 True, REDUCE sym_function_definition 12 0 485]),
    (7513, [ENTRY 1 False, REDUCE sym_function_definition 12 0 485]),
    (7515, [ENTRY 1 False, REDUCE sym_function_definition 10 0 317]),
    (7517, [ENTRY 1 True, REDUCE sym_function_definition 10 0 317]),
    (7519, [ENTRY 1 False, REDUCE sym_function_definition 10 0 318]),
    (7521, [ENTRY 1 True, REDUCE sym_function_definition 10 0 318]),
    (7523, [ENTRY 1 True, REDUCE sym_function_definition 12 0 486]),
    (7525, [ENTRY 1 False, REDUCE sym_function_definition 12 0 486]),
    (7527, [ENTRY 1 False, REDUCE sym_function_definition 10 0 319]),
    (7529, [ENTRY 1 True, REDUCE sym_function_definition 10 0 319]),
    (7531, [ENTRY 1 True, REDUCE sym_function_definition 12 0 487]),
    (7533, [ENTRY 1 False, REDUCE sym_function_definition 12 0 487]),
    (7535, [ENTRY 1 False, REDUCE sym_function_definition 10 0 320]),
    (7537, [ENTRY 1 True, REDUCE sym_function_definition 10 0 320]),
    (7539, [ENTRY 1 True, REDUCE sym_function_definition 12 0 488]),
    (7541, [ENTRY 1 False, REDUCE sym_function_definition 12 0 488]),
    (7543, [ENTRY 1 True, REDUCE sym_function_definition 12 0 489]),
    (7545, [ENTRY 1 False, REDUCE sym_function_definition 12 0 489]),
    (7547, [ENTRY 1 False, REDUCE sym_function_definition 10 0 321]),
    (7549, [ENTRY 1 True, REDUCE sym_function_definition 10 0 321]),
    (7551, [ENTRY 1 True, REDUCE sym_function_definition 12 0 490]),
    (7553, [ENTRY 1 False, REDUCE sym_function_definition 12 0 490]),
    (7555, [ENTRY 1 True, REDUCE sym_function_definition 12 0 491]),
    (7557, [ENTRY 1 False, REDUCE sym_function_definition 12 0 491]),
    (7559, [ENTRY 1 True, REDUCE sym_function_definition 12 0 492]),
    (7561, [ENTRY 1 False, REDUCE sym_function_definition 12 0 492]),
    (7563, [ENTRY 1 True, REDUCE sym_function_definition 12 0 493]),
    (7565, [ENTRY 1 False, REDUCE sym_function_definition 12 0 493]),
    (7567, [ENTRY 1 False, REDUCE sym_function_definition 10 0 322]),
    (7569, [ENTRY 1 True, REDUCE sym_function_definition 10 0 322]),
    (7571, [ENTRY 1 False, REDUCE sym_function_definition 10 0 323]),
    (7573, [ENTRY 1 True, REDUCE sym_function_definition 10 0 323]),
    (7575, [ENTRY 1 True, REDUCE sym_function_definition 12 0 494]),
    (7577, [ENTRY 1 False, REDUCE sym_function_definition 12 0 494]),
    (7579, [ENTRY 1 False, REDUCE sym_function_definition 10 0 324]),
    (7581, [ENTRY 1 True, REDUCE sym_function_definition 10 0 324]),
    (7583, [ENTRY 1 True, REDUCE sym_function_definition 12 0 495]),
    (7585, [ENTRY 1 False, REDUCE sym_function_definition 12 0 495]),
    (7587, [ENTRY 1 False, REDUCE sym_function_definition 10 0 325]),
    (7589, [ENTRY 1 True, REDUCE sym_function_definition 10 0 325])]"

definition parse_actions_25 :: "(nat \<times> TSParseActionEntry list) list" where "parse_actions_25 = [
    (7591, [ENTRY 1 True, REDUCE sym_function_definition 12 0 496]),
    (7593, [ENTRY 1 False, REDUCE sym_function_definition 12 0 496]),
    (7595, [ENTRY 1 False, REDUCE sym_function_definition 10 0 326]),
    (7597, [ENTRY 1 True, REDUCE sym_function_definition 10 0 326]),
    (7599, [ENTRY 1 True, REDUCE sym_function_definition 12 0 497]),
    (7601, [ENTRY 1 False, REDUCE sym_function_definition 12 0 497]),
    (7603, [ENTRY 1 True, REDUCE sym_function_definition 12 0 498]),
    (7605, [ENTRY 1 False, REDUCE sym_function_definition 12 0 498]),
    (7607, [ENTRY 1 True, REDUCE sym_function_definition 12 0 499]),
    (7609, [ENTRY 1 False, REDUCE sym_function_definition 12 0 499]),
    (7611, [ENTRY 1 True, REDUCE sym_function_definition 12 0 500]),
    (7613, [ENTRY 1 False, REDUCE sym_function_definition 12 0 500]),
    (7615, [ENTRY 1 False, REDUCE sym_function_definition 10 0 327]),
    (7617, [ENTRY 1 True, REDUCE sym_function_definition 10 0 327]),
    (7619, [ENTRY 1 False, REDUCE sym_function_definition 10 0 328]),
    (7621, [ENTRY 1 True, REDUCE sym_function_definition 10 0 328]),
    (7623, [ENTRY 1 True, REDUCE sym_function_definition 12 0 501]),
    (7625, [ENTRY 1 False, REDUCE sym_function_definition 12 0 501]),
    (7627, [ENTRY 1 True, REDUCE sym_function_definition 12 0 502]),
    (7629, [ENTRY 1 False, REDUCE sym_function_definition 12 0 502]),
    (7631, [ENTRY 1 True, REDUCE sym_function_definition 12 0 503]),
    (7633, [ENTRY 1 False, REDUCE sym_function_definition 12 0 503]),
    (7635, [ENTRY 1 True, REDUCE sym_function_definition 12 0 504]),
    (7637, [ENTRY 1 False, REDUCE sym_function_definition 12 0 504]),
    (7639, [ENTRY 1 True, REDUCE sym_function_definition 12 0 505]),
    (7641, [ENTRY 1 False, REDUCE sym_function_definition 12 0 505]),
    (7643, [ENTRY 1 False, REDUCE sym_function_definition 10 0 329]),
    (7645, [ENTRY 1 True, REDUCE sym_function_definition 10 0 329]),
    (7647, [ENTRY 1 True, REDUCE sym_function_definition 12 0 506]),
    (7649, [ENTRY 1 False, REDUCE sym_function_definition 12 0 506]),
    (7651, [ENTRY 1 False, REDUCE sym_function_definition 10 0 331]),
    (7653, [ENTRY 1 True, REDUCE sym_function_definition 10 0 331]),
    (7655, [ENTRY 1 True, REDUCE sym_function_definition 12 0 507]),
    (7657, [ENTRY 1 False, REDUCE sym_function_definition 12 0 507]),
    (7659, [ENTRY 1 True, REDUCE sym_function_definition 12 0 508]),
    (7661, [ENTRY 1 False, REDUCE sym_function_definition 12 0 508]),
    (7663, [ENTRY 1 True, REDUCE sym_function_definition 12 0 509]),
    (7665, [ENTRY 1 False, REDUCE sym_function_definition 12 0 509]),
    (7667, [ENTRY 1 True, REDUCE sym_function_definition 12 0 510]),
    (7669, [ENTRY 1 False, REDUCE sym_function_definition 12 0 510]),
    (7671, [ENTRY 1 True, REDUCE sym_function_definition 12 0 511]),
    (7673, [ENTRY 1 False, REDUCE sym_function_definition 12 0 511]),
    (7675, [ENTRY 1 True, REDUCE sym_function_definition 12 0 512]),
    (7677, [ENTRY 1 False, REDUCE sym_function_definition 12 0 512]),
    (7679, [ENTRY 1 True, REDUCE sym_function_definition 12 0 513]),
    (7681, [ENTRY 1 False, REDUCE sym_function_definition 12 0 513]),
    (7683, [ENTRY 1 True, REDUCE sym_function_definition 12 0 514]),
    (7685, [ENTRY 1 False, REDUCE sym_function_definition 12 0 514]),
    (7687, [ENTRY 1 True, REDUCE sym_function_definition 12 0 515]),
    (7689, [ENTRY 1 False, REDUCE sym_function_definition 12 0 515]),
    (7691, [ENTRY 1 True, REDUCE sym_function_definition 12 0 516]),
    (7693, [ENTRY 1 False, REDUCE sym_function_definition 12 0 516]),
    (7695, [ENTRY 1 True, REDUCE sym_function_definition 12 0 517]),
    (7697, [ENTRY 1 False, REDUCE sym_function_definition 12 0 517]),
    (7699, [ENTRY 1 True, REDUCE sym_function_definition 12 0 518]),
    (7701, [ENTRY 1 False, REDUCE sym_function_definition 12 0 518]),
    (7703, [ENTRY 1 True, REDUCE sym_function_definition 12 0 519]),
    (7705, [ENTRY 1 False, REDUCE sym_function_definition 12 0 519]),
    (7707, [ENTRY 1 True, REDUCE sym_function_definition 12 0 520]),
    (7709, [ENTRY 1 False, REDUCE sym_function_definition 12 0 520]),
    (7711, [ENTRY 1 True, REDUCE sym_function_definition 12 0 521]),
    (7713, [ENTRY 1 False, REDUCE sym_function_definition 12 0 521]),
    (7715, [ENTRY 1 True, REDUCE sym_function_definition 12 0 522]),
    (7717, [ENTRY 1 False, REDUCE sym_function_definition 12 0 522]),
    (7719, [ENTRY 1 True, REDUCE sym_function_definition 12 0 523]),
    (7721, [ENTRY 1 False, REDUCE sym_function_definition 12 0 523]),
    (7723, [ENTRY 1 True, REDUCE sym_function_definition 12 0 524]),
    (7725, [ENTRY 1 False, REDUCE sym_function_definition 12 0 524]),
    (7727, [ENTRY 1 True, REDUCE sym_function_definition 12 0 525]),
    (7729, [ENTRY 1 False, REDUCE sym_function_definition 12 0 525]),
    (7731, [ENTRY 1 True, REDUCE sym_function_definition 12 0 526]),
    (7733, [ENTRY 1 False, REDUCE sym_function_definition 12 0 526]),
    (7735, [ENTRY 1 True, REDUCE sym_function_definition 12 0 527]),
    (7737, [ENTRY 1 False, REDUCE sym_function_definition 12 0 527]),
    (7739, [ENTRY 1 True, REDUCE sym_function_definition 12 0 528]),
    (7741, [ENTRY 1 False, REDUCE sym_function_definition 12 0 528]),
    (7743, [ENTRY 1 True, REDUCE sym_function_definition 12 0 529]),
    (7745, [ENTRY 1 False, REDUCE sym_function_definition 12 0 529]),
    (7747, [ENTRY 1 True, REDUCE sym_function_definition 12 0 530]),
    (7749, [ENTRY 1 False, REDUCE sym_function_definition 12 0 530]),
    (7751, [ENTRY 1 True, REDUCE sym_argument_list 2 0 0]),
    (7753, [ENTRY 1 False, REDUCE sym_argument_list 2 0 0]),
    (7755, [ENTRY 1 True, REDUCE sym_function_definition 13 0 546]),
    (7757, [ENTRY 1 False, REDUCE sym_function_definition 13 0 546]),
    (7759, [ENTRY 1 True, REDUCE sym_function_definition 13 0 547]),
    (7761, [ENTRY 1 False, REDUCE sym_function_definition 13 0 547]),
    (7763, [ENTRY 1 True, REDUCE sym_function_definition 13 0 548]),
    (7765, [ENTRY 1 False, REDUCE sym_function_definition 13 0 548]),
    (7767, [ENTRY 1 True, REDUCE sym_function_definition 13 0 549]),
    (7769, [ENTRY 1 False, REDUCE sym_function_definition 13 0 549]),
    (7771, [ENTRY 1 True, REDUCE sym_function_definition 13 0 550]),
    (7773, [ENTRY 1 False, REDUCE sym_function_definition 13 0 550]),
    (7775, [ENTRY 1 True, REDUCE sym_function_definition 13 0 551]),
    (7777, [ENTRY 1 False, REDUCE sym_function_definition 13 0 551]),
    (7779, [ENTRY 1 True, REDUCE sym_function_definition 13 0 552]),
    (7781, [ENTRY 1 False, REDUCE sym_function_definition 13 0 552]),
    (7783, [ENTRY 1 True, REDUCE sym_function_definition 13 0 553]),
    (7785, [ENTRY 1 False, REDUCE sym_function_definition 13 0 553]),
    (7787, [ENTRY 1 True, REDUCE sym_function_definition 13 0 554]),
    (7789, [ENTRY 1 False, REDUCE sym_function_definition 13 0 554]),
    (7791, [ENTRY 1 True, REDUCE sym_function_definition 13 0 556]),
    (7793, [ENTRY 1 False, REDUCE sym_function_definition 13 0 556]),
    (7795, [ENTRY 1 True, REDUCE sym_function_definition 13 0 557]),
    (7797, [ENTRY 1 False, REDUCE sym_function_definition 13 0 557]),
    (7799, [ENTRY 1 True, REDUCE sym_function_definition 13 0 558]),
    (7801, [ENTRY 1 False, REDUCE sym_function_definition 13 0 558]),
    (7803, [ENTRY 1 True, REDUCE sym_function_definition 13 0 559]),
    (7805, [ENTRY 1 False, REDUCE sym_function_definition 13 0 559]),
    (7807, [ENTRY 1 True, REDUCE sym_function_definition 13 0 560]),
    (7809, [ENTRY 1 False, REDUCE sym_function_definition 13 0 560]),
    (7811, [ENTRY 1 True, REDUCE sym_function_definition 13 0 561]),
    (7813, [ENTRY 1 False, REDUCE sym_function_definition 13 0 561]),
    (7815, [ENTRY 1 True, REDUCE sym_function_definition 13 0 562]),
    (7817, [ENTRY 1 False, REDUCE sym_function_definition 13 0 562]),
    (7819, [ENTRY 1 True, REDUCE sym_function_definition 13 0 563]),
    (7821, [ENTRY 1 False, REDUCE sym_function_definition 13 0 563]),
    (7823, [ENTRY 1 True, REDUCE sym_function_definition 13 0 564]),
    (7825, [ENTRY 1 False, REDUCE sym_function_definition 13 0 564]),
    (7827, [ENTRY 1 True, REDUCE sym_function_definition 13 0 565]),
    (7829, [ENTRY 1 False, REDUCE sym_function_definition 13 0 565]),
    (7831, [ENTRY 1 True, REDUCE sym_function_definition 13 0 566]),
    (7833, [ENTRY 1 False, REDUCE sym_function_definition 13 0 566]),
    (7835, [ENTRY 1 True, REDUCE sym_function_definition 13 0 567]),
    (7837, [ENTRY 1 False, REDUCE sym_function_definition 13 0 567]),
    (7839, [ENTRY 1 True, REDUCE sym_function_definition 13 0 568]),
    (7841, [ENTRY 1 False, REDUCE sym_function_definition 13 0 568]),
    (7843, [ENTRY 1 True, REDUCE sym_function_definition 13 0 569]),
    (7845, [ENTRY 1 False, REDUCE sym_function_definition 13 0 569]),
    (7847, [ENTRY 1 True, REDUCE sym_function_definition 13 0 570]),
    (7849, [ENTRY 1 False, REDUCE sym_function_definition 13 0 570]),
    (7851, [ENTRY 1 True, REDUCE sym_function_definition 13 0 571]),
    (7853, [ENTRY 1 False, REDUCE sym_function_definition 13 0 571]),
    (7855, [ENTRY 1 True, REDUCE sym_function_definition 13 0 572]),
    (7857, [ENTRY 1 False, REDUCE sym_function_definition 13 0 572]),
    (7859, [ENTRY 1 True, REDUCE sym_function_definition 13 0 573]),
    (7861, [ENTRY 1 False, REDUCE sym_function_definition 13 0 573]),
    (7863, [ENTRY 1 True, REDUCE sym_function_definition 13 0 574]),
    (7865, [ENTRY 1 False, REDUCE sym_function_definition 13 0 574]),
    (7867, [ENTRY 1 True, REDUCE sym_function_definition 13 0 575]),
    (7869, [ENTRY 1 False, REDUCE sym_function_definition 13 0 575]),
    (7871, [ENTRY 1 True, REDUCE sym_function_definition 13 0 576]),
    (7873, [ENTRY 1 False, REDUCE sym_function_definition 13 0 576]),
    (7875, [ENTRY 1 True, REDUCE sym_function_definition 13 0 577]),
    (7877, [ENTRY 1 False, REDUCE sym_function_definition 13 0 577]),
    (7879, [ENTRY 1 True, REDUCE sym_function_definition 13 0 578]),
    (7881, [ENTRY 1 False, REDUCE sym_function_definition 13 0 578]),
    (7883, [ENTRY 1 True, REDUCE sym_function_definition 13 0 579]),
    (7885, [ENTRY 1 False, REDUCE sym_function_definition 13 0 579]),
    (7887, [ENTRY 1 True, REDUCE sym_function_definition 13 0 580]),
    (7889, [ENTRY 1 False, REDUCE sym_function_definition 13 0 580])]"

definition parse_actions_26 :: "(nat \<times> TSParseActionEntry list) list" where "parse_actions_26 = [
    (7891, [ENTRY 1 True, REDUCE sym_function_definition 13 0 581]),
    (7893, [ENTRY 1 False, REDUCE sym_function_definition 13 0 581]),
    (7895, [ENTRY 1 True, REDUCE sym_function_definition 13 0 582]),
    (7897, [ENTRY 1 False, REDUCE sym_function_definition 13 0 582]),
    (7899, [ENTRY 1 True, REDUCE sym_function_definition 13 0 583]),
    (7901, [ENTRY 1 False, REDUCE sym_function_definition 13 0 583]),
    (7903, [ENTRY 1 True, REDUCE sym_function_definition 13 0 584]),
    (7905, [ENTRY 1 False, REDUCE sym_function_definition 13 0 584]),
    (7907, [ENTRY 1 True, REDUCE sym_function_definition 13 0 585]),
    (7909, [ENTRY 1 False, REDUCE sym_function_definition 13 0 585]),
    (7911, [ENTRY 1 True, REDUCE sym_function_definition 13 0 586]),
    (7913, [ENTRY 1 False, REDUCE sym_function_definition 13 0 586]),
    (7915, [ENTRY 1 True, REDUCE sym_function_definition 13 0 587]),
    (7917, [ENTRY 1 False, REDUCE sym_function_definition 13 0 587]),
    (7919, [ENTRY 1 True, REDUCE sym_function_definition 13 0 588]),
    (7921, [ENTRY 1 False, REDUCE sym_function_definition 13 0 588]),
    (7923, [ENTRY 1 True, REDUCE sym_function_definition 13 0 589]),
    (7925, [ENTRY 1 False, REDUCE sym_function_definition 13 0 589]),
    (7927, [ENTRY 1 True, REDUCE sym_function_definition 13 0 590]),
    (7929, [ENTRY 1 False, REDUCE sym_function_definition 13 0 590]),
    (7931, [ENTRY 1 True, REDUCE sym_function_definition 13 0 591]),
    (7933, [ENTRY 1 False, REDUCE sym_function_definition 13 0 591]),
    (7935, [ENTRY 1 True, REDUCE sym_function_definition 13 0 592]),
    (7937, [ENTRY 1 False, REDUCE sym_function_definition 13 0 592]),
    (7939, [ENTRY 1 True, REDUCE sym_function_definition 13 0 593]),
    (7941, [ENTRY 1 False, REDUCE sym_function_definition 13 0 593]),
    (7943, [ENTRY 1 True, REDUCE sym_function_definition 13 0 594]),
    (7945, [ENTRY 1 False, REDUCE sym_function_definition 13 0 594]),
    (7947, [ENTRY 1 True, REDUCE sym_function_definition 13 0 595]),
    (7949, [ENTRY 1 False, REDUCE sym_function_definition 13 0 595]),
    (7951, [ENTRY 1 True, REDUCE sym_function_definition 13 0 596]),
    (7953, [ENTRY 1 False, REDUCE sym_function_definition 13 0 596]),
    (7955, [ENTRY 1 True, REDUCE sym_function_definition 13 0 597]),
    (7957, [ENTRY 1 False, REDUCE sym_function_definition 13 0 597]),
    (7959, [ENTRY 1 True, REDUCE sym_function_definition 13 0 598]),
    (7961, [ENTRY 1 False, REDUCE sym_function_definition 13 0 598]),
    (7963, [ENTRY 1 True, REDUCE sym_function_definition 13 0 599]),
    (7965, [ENTRY 1 False, REDUCE sym_function_definition 13 0 599]),
    (7967, [ENTRY 1 True, REDUCE sym_function_definition 13 0 600]),
    (7969, [ENTRY 1 False, REDUCE sym_function_definition 13 0 600]),
    (7971, [ENTRY 1 True, REDUCE sym_function_definition 13 0 601]),
    (7973, [ENTRY 1 False, REDUCE sym_function_definition 13 0 601]),
    (7975, [ENTRY 1 True, REDUCE sym_function_definition 13 0 602]),
    (7977, [ENTRY 1 False, REDUCE sym_function_definition 13 0 602]),
    (7979, [ENTRY 1 True, REDUCE sym_function_definition 13 0 603]),
    (7981, [ENTRY 1 False, REDUCE sym_function_definition 13 0 603]),
    (7983, [ENTRY 1 True, REDUCE sym_function_definition 13 0 604]),
    (7985, [ENTRY 1 False, REDUCE sym_function_definition 13 0 604]),
    (7987, [ENTRY 1 True, REDUCE sym_function_definition 13 0 605]),
    (7989, [ENTRY 1 False, REDUCE sym_function_definition 13 0 605]),
    (7991, [ENTRY 1 True, REDUCE sym_function_definition 13 0 606]),
    (7993, [ENTRY 1 False, REDUCE sym_function_definition 13 0 606]),
    (7995, [ENTRY 1 True, REDUCE sym_function_definition 13 0 607]),
    (7997, [ENTRY 1 False, REDUCE sym_function_definition 13 0 607]),
    (7999, [ENTRY 1 True, REDUCE sym_function_definition 11 0 370]),
    (8001, [ENTRY 1 False, REDUCE sym_function_definition 11 0 370]),
    (8003, [ENTRY 1 True, REDUCE sym_function_definition 11 0 371]),
    (8005, [ENTRY 1 False, REDUCE sym_function_definition 11 0 371]),
    (8007, [ENTRY 1 True, REDUCE sym_function_definition 13 0 608]),
    (8009, [ENTRY 1 False, REDUCE sym_function_definition 13 0 608]),
    (8011, [ENTRY 1 True, REDUCE sym_function_definition 13 0 609]),
    (8013, [ENTRY 1 False, REDUCE sym_function_definition 13 0 609]),
    (8015, [ENTRY 1 True, REDUCE sym_function_definition 13 0 610]),
    (8017, [ENTRY 1 False, REDUCE sym_function_definition 13 0 610]),
    (8019, [ENTRY 1 True, REDUCE sym_function_definition 13 0 611]),
    (8021, [ENTRY 1 False, REDUCE sym_function_definition 13 0 611]),
    (8023, [ENTRY 1 False, REDUCE sym_function_definition 11 0 372]),
    (8025, [ENTRY 1 True, REDUCE sym_function_definition 11 0 372]),
    (8027, [ENTRY 1 True, REDUCE sym_function_definition 13 0 612]),
    (8029, [ENTRY 1 False, REDUCE sym_function_definition 13 0 612]),
    (8031, [ENTRY 1 True, REDUCE sym_function_definition 13 0 613]),
    (8033, [ENTRY 1 False, REDUCE sym_function_definition 13 0 613]),
    (8035, [ENTRY 1 True, REDUCE sym_function_definition 13 0 614]),
    (8037, [ENTRY 1 False, REDUCE sym_function_definition 13 0 614]),
    (8039, [ENTRY 1 True, REDUCE sym_function_definition 13 0 615]),
    (8041, [ENTRY 1 False, REDUCE sym_function_definition 13 0 615]),
    (8043, [ENTRY 1 True, REDUCE sym_function_definition 13 0 616]),
    (8045, [ENTRY 1 False, REDUCE sym_function_definition 13 0 616]),
    (8047, [ENTRY 1 True, REDUCE sym_function_definition 13 0 617]),
    (8049, [ENTRY 1 False, REDUCE sym_function_definition 13 0 617]),
    (8051, [ENTRY 1 True, REDUCE sym_function_definition 13 0 618]),
    (8053, [ENTRY 1 False, REDUCE sym_function_definition 13 0 618]),
    (8055, [ENTRY 1 True, REDUCE sym_function_definition 13 0 619]),
    (8057, [ENTRY 1 False, REDUCE sym_function_definition 13 0 619]),
    (8059, [ENTRY 1 True, REDUCE sym_function_definition 13 0 620]),
    (8061, [ENTRY 1 False, REDUCE sym_function_definition 13 0 620]),
    (8063, [ENTRY 1 True, REDUCE sym_function_definition 13 0 621]),
    (8065, [ENTRY 1 False, REDUCE sym_function_definition 13 0 621]),
    (8067, [ENTRY 1 True, REDUCE sym_function_definition 13 0 622]),
    (8069, [ENTRY 1 False, REDUCE sym_function_definition 13 0 622]),
    (8071, [ENTRY 1 True, REDUCE sym_function_definition 13 0 623]),
    (8073, [ENTRY 1 False, REDUCE sym_function_definition 13 0 623]),
    (8075, [ENTRY 1 True, REDUCE sym_function_definition 13 0 624]),
    (8077, [ENTRY 1 False, REDUCE sym_function_definition 13 0 624]),
    (8079, [ENTRY 1 True, REDUCE sym_function_definition 13 0 625]),
    (8081, [ENTRY 1 False, REDUCE sym_function_definition 13 0 625]),
    (8083, [ENTRY 1 True, REDUCE sym_function_definition 13 0 626]),
    (8085, [ENTRY 1 False, REDUCE sym_function_definition 13 0 626]),
    (8087, [ENTRY 1 True, REDUCE sym_function_definition 13 0 627]),
    (8089, [ENTRY 1 False, REDUCE sym_function_definition 13 0 627]),
    (8091, [ENTRY 1 True, REDUCE sym_function_definition 13 0 628]),
    (8093, [ENTRY 1 False, REDUCE sym_function_definition 13 0 628]),
    (8095, [ENTRY 1 True, REDUCE sym_function_definition 13 0 629]),
    (8097, [ENTRY 1 False, REDUCE sym_function_definition 13 0 629]),
    (8099, [ENTRY 1 True, REDUCE sym_function_definition 14 0 636]),
    (8101, [ENTRY 1 False, REDUCE sym_function_definition 14 0 636]),
    (8103, [ENTRY 1 True, REDUCE sym_function_definition 14 0 637]),
    (8105, [ENTRY 1 False, REDUCE sym_function_definition 14 0 637]),
    (8107, [ENTRY 1 True, REDUCE sym_function_definition 14 0 638]),
    (8109, [ENTRY 1 False, REDUCE sym_function_definition 14 0 638]),
    (8111, [ENTRY 1 True, REDUCE sym_function_definition 14 0 639]),
    (8113, [ENTRY 1 False, REDUCE sym_function_definition 14 0 639]),
    (8115, [ENTRY 1 True, REDUCE sym_function_definition 14 0 640]),
    (8117, [ENTRY 1 False, REDUCE sym_function_definition 14 0 640]),
    (8119, [ENTRY 1 True, REDUCE sym_function_definition 14 0 641]),
    (8121, [ENTRY 1 False, REDUCE sym_function_definition 14 0 641]),
    (8123, [ENTRY 1 True, REDUCE sym_function_definition 14 0 642]),
    (8125, [ENTRY 1 False, REDUCE sym_function_definition 14 0 642]),
    (8127, [ENTRY 1 True, REDUCE sym_function_definition 14 0 643]),
    (8129, [ENTRY 1 False, REDUCE sym_function_definition 14 0 643]),
    (8131, [ENTRY 1 True, REDUCE sym_function_definition 14 0 644]),
    (8133, [ENTRY 1 False, REDUCE sym_function_definition 14 0 644]),
    (8135, [ENTRY 1 True, REDUCE sym_function_definition 14 0 645]),
    (8137, [ENTRY 1 False, REDUCE sym_function_definition 14 0 645]),
    (8139, [ENTRY 1 True, REDUCE sym_function_definition 14 0 646]),
    (8141, [ENTRY 1 False, REDUCE sym_function_definition 14 0 646]),
    (8143, [ENTRY 1 True, REDUCE sym_function_definition 14 0 647]),
    (8145, [ENTRY 1 False, REDUCE sym_function_definition 14 0 647]),
    (8147, [ENTRY 1 True, REDUCE sym_function_definition 14 0 648]),
    (8149, [ENTRY 1 False, REDUCE sym_function_definition 14 0 648]),
    (8151, [ENTRY 1 True, REDUCE sym_function_definition 14 0 649]),
    (8153, [ENTRY 1 False, REDUCE sym_function_definition 14 0 649]),
    (8155, [ENTRY 1 True, REDUCE sym_function_definition 14 0 650]),
    (8157, [ENTRY 1 False, REDUCE sym_function_definition 14 0 650]),
    (8159, [ENTRY 1 True, REDUCE sym_function_definition 14 0 651]),
    (8161, [ENTRY 1 False, REDUCE sym_function_definition 14 0 651]),
    (8163, [ENTRY 1 True, REDUCE sym_function_definition 14 0 652]),
    (8165, [ENTRY 1 False, REDUCE sym_function_definition 14 0 652]),
    (8167, [ENTRY 1 True, REDUCE sym_function_definition 14 0 653]),
    (8169, [ENTRY 1 False, REDUCE sym_function_definition 14 0 653]),
    (8171, [ENTRY 1 True, REDUCE sym_function_definition 14 0 654]),
    (8173, [ENTRY 1 False, REDUCE sym_function_definition 14 0 654]),
    (8175, [ENTRY 1 True, REDUCE sym_function_definition 14 0 655]),
    (8177, [ENTRY 1 False, REDUCE sym_function_definition 14 0 655]),
    (8179, [ENTRY 1 True, REDUCE sym_function_definition 14 0 656]),
    (8181, [ENTRY 1 False, REDUCE sym_function_definition 14 0 656]),
    (8183, [ENTRY 1 True, REDUCE sym_function_definition 14 0 657]),
    (8185, [ENTRY 1 False, REDUCE sym_function_definition 14 0 657]),
    (8187, [ENTRY 1 True, REDUCE sym_function_definition 14 0 658]),
    (8189, [ENTRY 1 False, REDUCE sym_function_definition 14 0 658])]"

definition parse_actions_27 :: "(nat \<times> TSParseActionEntry list) list" where "parse_actions_27 = [
    (8191, [ENTRY 1 True, REDUCE sym_function_definition 14 0 659]),
    (8193, [ENTRY 1 False, REDUCE sym_function_definition 14 0 659]),
    (8195, [ENTRY 1 True, REDUCE sym_function_definition 14 0 660]),
    (8197, [ENTRY 1 False, REDUCE sym_function_definition 14 0 660]),
    (8199, [ENTRY 1 False, REDUCE sym_argument_convention 1 0 0]),
    (8201, [ENTRY 1 True, REDUCE sym_argument_convention 1 0 0]),
    (8203, [ENTRY 1 True, REDUCE sym_function_definition 14 0 661]),
    (8205, [ENTRY 1 False, REDUCE sym_function_definition 14 0 661]),
    (8207, [ENTRY 1 True, REDUCE sym_function_definition 14 0 662]),
    (8209, [ENTRY 1 False, REDUCE sym_function_definition 14 0 662]),
    (8211, [ENTRY 1 True, REDUCE sym_function_definition 14 0 663]),
    (8213, [ENTRY 1 False, REDUCE sym_function_definition 14 0 663]),
    (8215, [ENTRY 1 True, REDUCE sym_function_definition 14 0 664]),
    (8217, [ENTRY 1 False, REDUCE sym_function_definition 14 0 664]),
    (8219, [ENTRY 1 True, REDUCE sym_function_definition 14 0 665]),
    (8221, [ENTRY 1 False, REDUCE sym_function_definition 14 0 665]),
    (8223, [ENTRY 1 True, REDUCE sym_function_definition 14 0 666]),
    (8225, [ENTRY 1 False, REDUCE sym_function_definition 14 0 666]),
    (8227, [ENTRY 1 True, REDUCE sym_function_definition 14 0 667]),
    (8229, [ENTRY 1 False, REDUCE sym_function_definition 14 0 667]),
    (8231, [ENTRY 1 True, REDUCE sym_function_definition 14 0 668]),
    (8233, [ENTRY 1 False, REDUCE sym_function_definition 14 0 668]),
    (8235, [ENTRY 1 True, REDUCE sym_function_definition 14 0 669]),
    (8237, [ENTRY 1 False, REDUCE sym_function_definition 14 0 669]),
    (8239, [ENTRY 1 True, REDUCE sym_function_definition 14 0 670]),
    (8241, [ENTRY 1 False, REDUCE sym_function_definition 14 0 670]),
    (8243, [ENTRY 1 True, REDUCE sym_function_definition 14 0 671]),
    (8245, [ENTRY 1 False, REDUCE sym_function_definition 14 0 671]),
    (8247, [ENTRY 1 True, REDUCE sym_function_definition 14 0 672]),
    (8249, [ENTRY 1 False, REDUCE sym_function_definition 14 0 672]),
    (8251, [ENTRY 1 True, REDUCE sym_function_definition 14 0 673]),
    (8253, [ENTRY 1 False, REDUCE sym_function_definition 14 0 673]),
    (8255, [ENTRY 1 True, REDUCE sym_function_definition 14 0 674]),
    (8257, [ENTRY 1 False, REDUCE sym_function_definition 14 0 674]),
    (8259, [ENTRY 1 True, REDUCE sym_function_definition 14 0 675]),
    (8261, [ENTRY 1 False, REDUCE sym_function_definition 14 0 675]),
    (8263, [ENTRY 1 True, REDUCE sym_function_definition 14 0 677]),
    (8265, [ENTRY 1 False, REDUCE sym_function_definition 14 0 677]),
    (8267, [ENTRY 1 True, REDUCE sym_function_definition 14 0 678]),
    (8269, [ENTRY 1 False, REDUCE sym_function_definition 14 0 678]),
    (8271, [ENTRY 1 True, REDUCE sym_function_definition 14 0 679]),
    (8273, [ENTRY 1 False, REDUCE sym_function_definition 14 0 679]),
    (8275, [ENTRY 1 True, REDUCE sym_function_definition 14 0 680]),
    (8277, [ENTRY 1 False, REDUCE sym_function_definition 14 0 680]),
    (8279, [ENTRY 1 True, REDUCE sym_function_definition 14 0 681]),
    (8281, [ENTRY 1 False, REDUCE sym_function_definition 14 0 681]),
    (8283, [ENTRY 1 True, REDUCE sym_function_definition 14 0 682]),
    (8285, [ENTRY 1 False, REDUCE sym_function_definition 14 0 682]),
    (8287, [ENTRY 1 True, REDUCE sym_function_definition 14 0 683]),
    (8289, [ENTRY 1 False, REDUCE sym_function_definition 14 0 683]),
    (8291, [ENTRY 1 True, REDUCE sym_function_definition 14 0 684]),
    (8293, [ENTRY 1 False, REDUCE sym_function_definition 14 0 684]),
    (8295, [ENTRY 1 True, REDUCE sym_function_definition 14 0 685]),
    (8297, [ENTRY 1 False, REDUCE sym_function_definition 14 0 685]),
    (8299, [ENTRY 1 True, REDUCE sym_function_definition 14 0 686]),
    (8301, [ENTRY 1 False, REDUCE sym_function_definition 14 0 686]),
    (8303, [ENTRY 1 True, REDUCE sym_function_definition 14 0 687]),
    (8305, [ENTRY 1 False, REDUCE sym_function_definition 14 0 687]),
    (8307, [ENTRY 1 True, REDUCE sym_function_definition 14 0 688]),
    (8309, [ENTRY 1 False, REDUCE sym_function_definition 14 0 688]),
    (8311, [ENTRY 1 True, REDUCE sym_function_definition 14 0 689]),
    (8313, [ENTRY 1 False, REDUCE sym_function_definition 14 0 689]),
    (8315, [ENTRY 1 True, REDUCE sym_function_definition 14 0 690]),
    (8317, [ENTRY 1 False, REDUCE sym_function_definition 14 0 690]),
    (8319, [ENTRY 1 True, REDUCE sym_function_definition 14 0 691]),
    (8321, [ENTRY 1 False, REDUCE sym_function_definition 14 0 691]),
    (8323, [ENTRY 1 True, REDUCE sym_function_definition 14 0 692]),
    (8325, [ENTRY 1 False, REDUCE sym_function_definition 14 0 692]),
    (8327, [ENTRY 1 True, REDUCE sym_function_definition 14 0 693]),
    (8329, [ENTRY 1 False, REDUCE sym_function_definition 14 0 693]),
    (8331, [ENTRY 1 True, REDUCE sym_function_definition 14 0 694]),
    (8333, [ENTRY 1 False, REDUCE sym_function_definition 14 0 694]),
    (8335, [ENTRY 1 True, REDUCE sym_function_definition 14 0 695]),
    (8337, [ENTRY 1 False, REDUCE sym_function_definition 14 0 695]),
    (8339, [ENTRY 1 True, REDUCE sym_function_definition 14 0 696]),
    (8341, [ENTRY 1 False, REDUCE sym_function_definition 14 0 696]),
    (8343, [ENTRY 1 True, REDUCE sym_argument_list 3 0 0]),
    (8345, [ENTRY 1 False, REDUCE sym_argument_list 3 0 0]),
    (8347, [ENTRY 1 True, REDUCE sym_function_definition 14 0 697]),
    (8349, [ENTRY 1 False, REDUCE sym_function_definition 14 0 697]),
    (8351, [ENTRY 1 True, REDUCE sym_function_definition 14 0 698]),
    (8353, [ENTRY 1 False, REDUCE sym_function_definition 14 0 698]),
    (8355, [ENTRY 1 True, REDUCE sym_argument_list 3 0 36]),
    (8357, [ENTRY 1 False, REDUCE sym_argument_list 3 0 36]),
    (8359, [ENTRY 1 True, REDUCE sym_function_definition 14 0 699]),
    (8361, [ENTRY 1 False, REDUCE sym_function_definition 14 0 699]),
    (8363, [ENTRY 1 True, REDUCE sym_function_definition 14 0 700]),
    (8365, [ENTRY 1 False, REDUCE sym_function_definition 14 0 700]),
    (8367, [ENTRY 1 True, REDUCE sym_function_definition 14 0 701]),
    (8369, [ENTRY 1 False, REDUCE sym_function_definition 14 0 701]),
    (8371, [ENTRY 1 True, REDUCE sym_function_definition 14 0 702]),
    (8373, [ENTRY 1 False, REDUCE sym_function_definition 14 0 702]),
    (8375, [ENTRY 1 True, REDUCE sym_function_definition 14 0 703]),
    (8377, [ENTRY 1 False, REDUCE sym_function_definition 14 0 703]),
    (8379, [ENTRY 1 True, REDUCE sym_function_definition 14 0 704]),
    (8381, [ENTRY 1 False, REDUCE sym_function_definition 14 0 704]),
    (8383, [ENTRY 1 True, REDUCE sym_function_definition 14 0 705]),
    (8385, [ENTRY 1 False, REDUCE sym_function_definition 14 0 705]),
    (8387, [ENTRY 1 True, REDUCE sym_function_definition 14 0 706]),
    (8389, [ENTRY 1 False, REDUCE sym_function_definition 14 0 706]),
    (8391, [ENTRY 1 True, REDUCE sym_function_definition 14 0 707]),
    (8393, [ENTRY 1 False, REDUCE sym_function_definition 14 0 707]),
    (8395, [ENTRY 1 True, REDUCE sym_function_definition 14 0 708]),
    (8397, [ENTRY 1 False, REDUCE sym_function_definition 14 0 708]),
    (8399, [ENTRY 1 True, REDUCE sym_function_definition 14 0 709]),
    (8401, [ENTRY 1 False, REDUCE sym_function_definition 14 0 709]),
    (8403, [ENTRY 1 True, REDUCE sym_function_definition 14 0 710]),
    (8405, [ENTRY 1 False, REDUCE sym_function_definition 14 0 710]),
    (8407, [ENTRY 1 True, REDUCE sym_function_definition 14 0 711]),
    (8409, [ENTRY 1 False, REDUCE sym_function_definition 14 0 711]),
    (8411, [ENTRY 1 True, REDUCE sym_function_definition 14 0 712]),
    (8413, [ENTRY 1 False, REDUCE sym_function_definition 14 0 712]),
    (8415, [ENTRY 1 True, REDUCE sym_function_definition 14 0 713]),
    (8417, [ENTRY 1 False, REDUCE sym_function_definition 14 0 713]),
    (8419, [ENTRY 1 True, REDUCE sym_function_definition 14 0 714]),
    (8421, [ENTRY 1 False, REDUCE sym_function_definition 14 0 714]),
    (8423, [ENTRY 1 True, REDUCE sym_function_definition 14 0 715]),
    (8425, [ENTRY 1 False, REDUCE sym_function_definition 14 0 715]),
    (8427, [ENTRY 1 True, REDUCE sym_function_definition 14 0 716]),
    (8429, [ENTRY 1 False, REDUCE sym_function_definition 14 0 716]),
    (8431, [ENTRY 1 True, REDUCE sym_function_definition 14 0 717]),
    (8433, [ENTRY 1 False, REDUCE sym_function_definition 14 0 717]),
    (8435, [ENTRY 1 True, REDUCE sym_function_definition 14 0 718]),
    (8437, [ENTRY 1 False, REDUCE sym_function_definition 14 0 718]),
    (8439, [ENTRY 1 True, REDUCE sym_function_definition 14 0 719]),
    (8441, [ENTRY 1 False, REDUCE sym_function_definition 14 0 719]),
    (8443, [ENTRY 1 True, REDUCE sym_function_definition 14 0 720]),
    (8445, [ENTRY 1 False, REDUCE sym_function_definition 14 0 720]),
    (8447, [ENTRY 1 True, REDUCE sym_function_definition 14 0 721]),
    (8449, [ENTRY 1 False, REDUCE sym_function_definition 14 0 721]),
    (8451, [ENTRY 1 True, REDUCE sym_function_definition 14 0 722]),
    (8453, [ENTRY 1 False, REDUCE sym_function_definition 14 0 722]),
    (8455, [ENTRY 1 True, REDUCE sym_function_definition 14 0 723]),
    (8457, [ENTRY 1 False, REDUCE sym_function_definition 14 0 723]),
    (8459, [ENTRY 1 True, REDUCE sym_function_definition 14 0 724]),
    (8461, [ENTRY 1 False, REDUCE sym_function_definition 14 0 724]),
    (8463, [ENTRY 1 True, REDUCE sym_function_definition 14 0 725]),
    (8465, [ENTRY 1 False, REDUCE sym_function_definition 14 0 725]),
    (8467, [ENTRY 1 True, REDUCE sym_function_definition 14 0 726]),
    (8469, [ENTRY 1 False, REDUCE sym_function_definition 14 0 726]),
    (8471, [ENTRY 1 True, REDUCE sym_function_definition 15 0 728]),
    (8473, [ENTRY 1 False, REDUCE sym_function_definition 15 0 728]),
    (8475, [ENTRY 1 True, REDUCE sym_function_definition 15 0 729]),
    (8477, [ENTRY 1 False, REDUCE sym_function_definition 15 0 729]),
    (8479, [ENTRY 1 True, REDUCE sym_function_definition 15 0 730]),
    (8481, [ENTRY 1 False, REDUCE sym_function_definition 15 0 730]),
    (8483, [ENTRY 1 True, REDUCE sym_function_definition 15 0 731]),
    (8485, [ENTRY 1 False, REDUCE sym_function_definition 15 0 731]),
    (8487, [ENTRY 1 True, REDUCE sym_function_definition 15 0 732]),
    (8489, [ENTRY 1 False, REDUCE sym_function_definition 15 0 732])]"

definition parse_actions_28 :: "(nat \<times> TSParseActionEntry list) list" where "parse_actions_28 = [
    (8491, [ENTRY 1 True, REDUCE sym_function_definition 15 0 733]),
    (8493, [ENTRY 1 False, REDUCE sym_function_definition 15 0 733]),
    (8495, [ENTRY 1 True, REDUCE sym_function_definition 15 0 734]),
    (8497, [ENTRY 1 False, REDUCE sym_function_definition 15 0 734]),
    (8499, [ENTRY 1 True, REDUCE sym_function_definition 15 0 735]),
    (8501, [ENTRY 1 False, REDUCE sym_function_definition 15 0 735]),
    (8503, [ENTRY 1 True, REDUCE sym_function_definition 15 0 736]),
    (8505, [ENTRY 1 False, REDUCE sym_function_definition 15 0 736]),
    (8507, [ENTRY 1 True, REDUCE sym_function_definition 15 0 737]),
    (8509, [ENTRY 1 False, REDUCE sym_function_definition 15 0 737]),
    (8511, [ENTRY 1 True, REDUCE sym_function_definition 15 0 738]),
    (8513, [ENTRY 1 False, REDUCE sym_function_definition 15 0 738]),
    (8515, [ENTRY 1 True, REDUCE sym_function_definition 15 0 739]),
    (8517, [ENTRY 1 False, REDUCE sym_function_definition 15 0 739]),
    (8519, [ENTRY 1 True, REDUCE sym_function_definition 15 0 740]),
    (8521, [ENTRY 1 False, REDUCE sym_function_definition 15 0 740]),
    (8523, [ENTRY 1 True, REDUCE sym_function_definition 15 0 741]),
    (8525, [ENTRY 1 False, REDUCE sym_function_definition 15 0 741]),
    (8527, [ENTRY 1 True, REDUCE sym_function_definition 15 0 742]),
    (8529, [ENTRY 1 False, REDUCE sym_function_definition 15 0 742]),
    (8531, [ENTRY 1 True, REDUCE sym_function_definition 15 0 743]),
    (8533, [ENTRY 1 False, REDUCE sym_function_definition 15 0 743]),
    (8535, [ENTRY 1 True, REDUCE sym_function_definition 15 0 744]),
    (8537, [ENTRY 1 False, REDUCE sym_function_definition 15 0 744]),
    (8539, [ENTRY 1 True, REDUCE sym_function_definition 15 0 745]),
    (8541, [ENTRY 1 False, REDUCE sym_function_definition 15 0 745]),
    (8543, [ENTRY 1 True, REDUCE sym_function_definition 15 0 746]),
    (8545, [ENTRY 1 False, REDUCE sym_function_definition 15 0 746]),
    (8547, [ENTRY 1 True, REDUCE sym_function_definition 15 0 747]),
    (8549, [ENTRY 1 False, REDUCE sym_function_definition 15 0 747]),
    (8551, [ENTRY 1 True, REDUCE sym_function_definition 15 0 748]),
    (8553, [ENTRY 1 False, REDUCE sym_function_definition 15 0 748]),
    (8555, [ENTRY 1 True, REDUCE sym_function_definition 15 0 749]),
    (8557, [ENTRY 1 False, REDUCE sym_function_definition 15 0 749]),
    (8559, [ENTRY 1 True, REDUCE sym_function_definition 15 0 750]),
    (8561, [ENTRY 1 False, REDUCE sym_function_definition 15 0 750]),
    (8563, [ENTRY 1 True, REDUCE sym_function_definition 15 0 751]),
    (8565, [ENTRY 1 False, REDUCE sym_function_definition 15 0 751]),
    (8567, [ENTRY 1 True, REDUCE sym_function_definition 15 0 752]),
    (8569, [ENTRY 1 False, REDUCE sym_function_definition 15 0 752]),
    (8571, [ENTRY 1 True, REDUCE sym_function_definition 15 0 753]),
    (8573, [ENTRY 1 False, REDUCE sym_function_definition 15 0 753]),
    (8575, [ENTRY 1 True, REDUCE sym_function_definition 15 0 754]),
    (8577, [ENTRY 1 False, REDUCE sym_function_definition 15 0 754]),
    (8579, [ENTRY 1 True, REDUCE sym_function_definition 15 0 755]),
    (8581, [ENTRY 1 False, REDUCE sym_function_definition 15 0 755]),
    (8583, [ENTRY 1 True, REDUCE sym_function_definition 15 0 756]),
    (8585, [ENTRY 1 False, REDUCE sym_function_definition 15 0 756]),
    (8587, [ENTRY 1 True, REDUCE sym_function_definition 15 0 757]),
    (8589, [ENTRY 1 False, REDUCE sym_function_definition 15 0 757]),
    (8591, [ENTRY 1 True, REDUCE sym_function_definition 15 0 758]),
    (8593, [ENTRY 1 False, REDUCE sym_function_definition 15 0 758]),
    (8595, [ENTRY 1 True, REDUCE sym_function_definition 15 0 759]),
    (8597, [ENTRY 1 False, REDUCE sym_function_definition 15 0 759]),
    (8599, [ENTRY 1 True, REDUCE sym_function_definition 15 0 760]),
    (8601, [ENTRY 1 False, REDUCE sym_function_definition 15 0 760]),
    (8603, [ENTRY 1 True, REDUCE sym_function_definition 15 0 761]),
    (8605, [ENTRY 1 False, REDUCE sym_function_definition 15 0 761]),
    (8607, [ENTRY 1 True, REDUCE sym_function_definition 15 0 762]),
    (8609, [ENTRY 1 False, REDUCE sym_function_definition 15 0 762]),
    (8611, [ENTRY 1 True, REDUCE sym_function_definition 15 0 763]),
    (8613, [ENTRY 1 False, REDUCE sym_function_definition 15 0 763]),
    (8615, [ENTRY 1 True, REDUCE sym_function_definition 15 0 764]),
    (8617, [ENTRY 1 False, REDUCE sym_function_definition 15 0 764]),
    (8619, [ENTRY 1 True, REDUCE sym_function_definition 15 0 765]),
    (8621, [ENTRY 1 False, REDUCE sym_function_definition 15 0 765]),
    (8623, [ENTRY 1 True, REDUCE sym_function_definition 15 0 766]),
    (8625, [ENTRY 1 False, REDUCE sym_function_definition 15 0 766]),
    (8627, [ENTRY 1 True, REDUCE sym_function_definition 15 0 767]),
    (8629, [ENTRY 1 False, REDUCE sym_function_definition 15 0 767]),
    (8631, [ENTRY 1 True, REDUCE sym_function_definition 15 0 768]),
    (8633, [ENTRY 1 False, REDUCE sym_function_definition 15 0 768]),
    (8635, [ENTRY 1 True, REDUCE sym_function_definition 15 0 769]),
    (8637, [ENTRY 1 False, REDUCE sym_function_definition 15 0 769]),
    (8639, [ENTRY 1 True, REDUCE sym_function_definition 15 0 770]),
    (8641, [ENTRY 1 False, REDUCE sym_function_definition 15 0 770]),
    (8643, [ENTRY 1 True, REDUCE sym_function_definition 15 0 771]),
    (8645, [ENTRY 1 False, REDUCE sym_function_definition 15 0 771]),
    (8647, [ENTRY 1 True, REDUCE sym_function_definition 15 0 772]),
    (8649, [ENTRY 1 False, REDUCE sym_function_definition 15 0 772]),
    (8651, [ENTRY 1 True, REDUCE sym_function_definition 15 0 773]),
    (8653, [ENTRY 1 False, REDUCE sym_function_definition 15 0 773]),
    (8655, [ENTRY 1 True, REDUCE sym_function_definition 15 0 774]),
    (8657, [ENTRY 1 False, REDUCE sym_function_definition 15 0 774]),
    (8659, [ENTRY 1 True, REDUCE sym_function_definition 15 0 775]),
    (8661, [ENTRY 1 False, REDUCE sym_function_definition 15 0 775]),
    (8663, [ENTRY 1 True, REDUCE sym_function_definition 15 0 776]),
    (8665, [ENTRY 1 False, REDUCE sym_function_definition 15 0 776]),
    (8667, [ENTRY 1 True, REDUCE sym_function_definition 15 0 777]),
    (8669, [ENTRY 1 False, REDUCE sym_function_definition 15 0 777]),
    (8671, [ENTRY 1 True, REDUCE sym_function_definition 15 0 778]),
    (8673, [ENTRY 1 False, REDUCE sym_function_definition 15 0 778]),
    (8675, [ENTRY 1 True, REDUCE sym_function_definition 15 0 779]),
    (8677, [ENTRY 1 False, REDUCE sym_function_definition 15 0 779]),
    (8679, [ENTRY 1 True, REDUCE sym_function_definition 15 0 780]),
    (8681, [ENTRY 1 False, REDUCE sym_function_definition 15 0 780]),
    (8683, [ENTRY 1 True, REDUCE sym_function_definition 15 0 781]),
    (8685, [ENTRY 1 False, REDUCE sym_function_definition 15 0 781]),
    (8687, [ENTRY 1 True, REDUCE sym_function_definition 15 0 782]),
    (8689, [ENTRY 1 False, REDUCE sym_function_definition 15 0 782]),
    (8691, [ENTRY 1 True, REDUCE sym_function_definition 15 0 783]),
    (8693, [ENTRY 1 False, REDUCE sym_function_definition 15 0 783]),
    (8695, [ENTRY 1 True, REDUCE sym_function_definition 15 0 784]),
    (8697, [ENTRY 1 False, REDUCE sym_function_definition 15 0 784]),
    (8699, [ENTRY 1 True, REDUCE sym_function_definition 15 0 785]),
    (8701, [ENTRY 1 False, REDUCE sym_function_definition 15 0 785]),
    (8703, [ENTRY 1 True, REDUCE sym_function_definition 15 0 786]),
    (8705, [ENTRY 1 False, REDUCE sym_function_definition 15 0 786]),
    (8707, [ENTRY 1 True, REDUCE sym_function_definition 15 0 787]),
    (8709, [ENTRY 1 False, REDUCE sym_function_definition 15 0 787]),
    (8711, [ENTRY 1 True, REDUCE sym_function_definition 15 0 788]),
    (8713, [ENTRY 1 False, REDUCE sym_function_definition 15 0 788]),
    (8715, [ENTRY 1 True, REDUCE sym_function_definition 15 0 789]),
    (8717, [ENTRY 1 False, REDUCE sym_function_definition 15 0 789]),
    (8719, [ENTRY 1 True, REDUCE sym_function_definition 15 0 790]),
    (8721, [ENTRY 1 False, REDUCE sym_function_definition 15 0 790]),
    (8723, [ENTRY 1 True, REDUCE sym_function_definition 15 0 791]),
    (8725, [ENTRY 1 False, REDUCE sym_function_definition 15 0 791]),
    (8727, [ENTRY 1 True, REDUCE sym_function_definition 15 0 792]),
    (8729, [ENTRY 1 False, REDUCE sym_function_definition 15 0 792]),
    (8731, [ENTRY 1 True, REDUCE sym_function_definition 15 0 793]),
    (8733, [ENTRY 1 False, REDUCE sym_function_definition 15 0 793]),
    (8735, [ENTRY 1 True, REDUCE sym_function_definition 15 0 794]),
    (8737, [ENTRY 1 False, REDUCE sym_function_definition 15 0 794]),
    (8739, [ENTRY 1 True, REDUCE sym_function_definition 15 0 795]),
    (8741, [ENTRY 1 False, REDUCE sym_function_definition 15 0 795]),
    (8743, [ENTRY 1 True, REDUCE sym_function_definition 15 0 796]),
    (8745, [ENTRY 1 False, REDUCE sym_function_definition 15 0 796]),
    (8747, [ENTRY 1 True, REDUCE sym_function_definition 15 0 797]),
    (8749, [ENTRY 1 False, REDUCE sym_function_definition 15 0 797]),
    (8751, [ENTRY 1 True, REDUCE sym_function_definition 15 0 798]),
    (8753, [ENTRY 1 False, REDUCE sym_function_definition 15 0 798]),
    (8755, [ENTRY 1 True, REDUCE sym_function_definition 15 0 799]),
    (8757, [ENTRY 1 False, REDUCE sym_function_definition 15 0 799]),
    (8759, [ENTRY 1 True, REDUCE sym_function_definition 15 0 800]),
    (8761, [ENTRY 1 False, REDUCE sym_function_definition 15 0 800]),
    (8763, [ENTRY 1 True, REDUCE sym_function_definition 15 0 801]),
    (8765, [ENTRY 1 False, REDUCE sym_function_definition 15 0 801]),
    (8767, [ENTRY 1 True, REDUCE sym_function_definition 15 0 802]),
    (8769, [ENTRY 1 False, REDUCE sym_function_definition 15 0 802]),
    (8771, [ENTRY 1 True, REDUCE sym_function_definition 15 0 803]),
    (8773, [ENTRY 1 False, REDUCE sym_function_definition 15 0 803]),
    (8775, [ENTRY 1 True, REDUCE sym_function_definition 15 0 804]),
    (8777, [ENTRY 1 False, REDUCE sym_function_definition 15 0 804]),
    (8779, [ENTRY 1 True, REDUCE sym_function_definition 15 0 805]),
    (8781, [ENTRY 1 False, REDUCE sym_function_definition 15 0 805]),
    (8783, [ENTRY 1 True, REDUCE sym_function_definition 15 0 806]),
    (8785, [ENTRY 1 False, REDUCE sym_function_definition 15 0 806]),
    (8787, [ENTRY 1 True, REDUCE sym_function_definition 15 0 807]),
    (8789, [ENTRY 1 False, REDUCE sym_function_definition 15 0 807])]"

definition parse_actions_29 :: "(nat \<times> TSParseActionEntry list) list" where "parse_actions_29 = [
    (8791, [ENTRY 1 True, REDUCE sym_function_definition 15 0 808]),
    (8793, [ENTRY 1 False, REDUCE sym_function_definition 15 0 808]),
    (8795, [ENTRY 1 True, REDUCE sym_function_definition 15 0 809]),
    (8797, [ENTRY 1 False, REDUCE sym_function_definition 15 0 809]),
    (8799, [ENTRY 1 True, REDUCE sym_function_definition 15 0 810]),
    (8801, [ENTRY 1 False, REDUCE sym_function_definition 15 0 810]),
    (8803, [ENTRY 1 True, REDUCE sym_function_definition 15 0 811]),
    (8805, [ENTRY 1 False, REDUCE sym_function_definition 15 0 811]),
    (8807, [ENTRY 1 True, REDUCE sym_function_definition 15 0 812]),
    (8809, [ENTRY 1 False, REDUCE sym_function_definition 15 0 812]),
    (8811, [ENTRY 1 True, REDUCE sym_function_definition 15 0 813]),
    (8813, [ENTRY 1 False, REDUCE sym_function_definition 15 0 813]),
    (8815, [ENTRY 1 True, REDUCE sym_function_definition 15 0 814]),
    (8817, [ENTRY 1 False, REDUCE sym_function_definition 15 0 814]),
    (8819, [ENTRY 1 True, REDUCE sym_function_definition 15 0 815]),
    (8821, [ENTRY 1 False, REDUCE sym_function_definition 15 0 815]),
    (8823, [ENTRY 1 True, REDUCE sym_function_definition 15 0 816]),
    (8825, [ENTRY 1 False, REDUCE sym_function_definition 15 0 816]),
    (8827, [ENTRY 1 True, REDUCE sym_function_definition 15 0 817]),
    (8829, [ENTRY 1 False, REDUCE sym_function_definition 15 0 817]),
    (8831, [ENTRY 1 True, REDUCE sym_function_definition 15 0 818]),
    (8833, [ENTRY 1 False, REDUCE sym_function_definition 15 0 818]),
    (8835, [ENTRY 1 True, REDUCE sym_function_definition 15 0 819]),
    (8837, [ENTRY 1 False, REDUCE sym_function_definition 15 0 819]),
    (8839, [ENTRY 1 True, REDUCE sym_function_definition 15 0 820]),
    (8841, [ENTRY 1 False, REDUCE sym_function_definition 15 0 820]),
    (8843, [ENTRY 1 True, REDUCE sym_function_definition 16 0 821]),
    (8845, [ENTRY 1 False, REDUCE sym_function_definition 16 0 821]),
    (8847, [ENTRY 1 True, REDUCE sym_function_definition 16 0 822]),
    (8849, [ENTRY 1 False, REDUCE sym_function_definition 16 0 822]),
    (8851, [ENTRY 1 True, REDUCE sym_function_definition 16 0 823]),
    (8853, [ENTRY 1 False, REDUCE sym_function_definition 16 0 823]),
    (8855, [ENTRY 1 True, REDUCE sym_function_definition 16 0 824]),
    (8857, [ENTRY 1 False, REDUCE sym_function_definition 16 0 824]),
    (8859, [ENTRY 1 True, REDUCE sym_function_definition 16 0 825]),
    (8861, [ENTRY 1 False, REDUCE sym_function_definition 16 0 825]),
    (8863, [ENTRY 1 True, REDUCE sym_function_definition 16 0 826]),
    (8865, [ENTRY 1 False, REDUCE sym_function_definition 16 0 826]),
    (8867, [ENTRY 1 False, REDUCE sym_function_definition 14 0 676]),
    (8869, [ENTRY 1 True, REDUCE sym_function_definition 14 0 676]),
    (8871, [ENTRY 1 True, REDUCE sym_function_definition 16 0 827]),
    (8873, [ENTRY 1 False, REDUCE sym_function_definition 16 0 827]),
    (8875, [ENTRY 1 True, REDUCE sym_function_definition 16 0 828]),
    (8877, [ENTRY 1 False, REDUCE sym_function_definition 16 0 828]),
    (8879, [ENTRY 1 True, REDUCE sym_function_definition 16 0 829]),
    (8881, [ENTRY 1 False, REDUCE sym_function_definition 16 0 829]),
    (8883, [ENTRY 1 True, REDUCE sym_function_definition 16 0 830]),
    (8885, [ENTRY 1 False, REDUCE sym_function_definition 16 0 830]),
    (8887, [ENTRY 1 True, REDUCE sym_function_definition 16 0 831]),
    (8889, [ENTRY 1 False, REDUCE sym_function_definition 16 0 831]),
    (8891, [ENTRY 1 True, REDUCE sym_function_definition 16 0 832]),
    (8893, [ENTRY 1 False, REDUCE sym_function_definition 16 0 832]),
    (8895, [ENTRY 1 True, REDUCE sym_function_definition 16 0 833]),
    (8897, [ENTRY 1 False, REDUCE sym_function_definition 16 0 833]),
    (8899, [ENTRY 1 True, REDUCE sym_function_definition 16 0 834]),
    (8901, [ENTRY 1 False, REDUCE sym_function_definition 16 0 834]),
    (8903, [ENTRY 1 True, REDUCE sym_function_definition 16 0 835]),
    (8905, [ENTRY 1 False, REDUCE sym_function_definition 16 0 835]),
    (8907, [ENTRY 1 True, REDUCE sym_function_definition 16 0 836]),
    (8909, [ENTRY 1 False, REDUCE sym_function_definition 16 0 836]),
    (8911, [ENTRY 1 True, REDUCE sym_function_definition 16 0 837]),
    (8913, [ENTRY 1 False, REDUCE sym_function_definition 16 0 837]),
    (8915, [ENTRY 1 True, REDUCE sym_function_definition 16 0 838]),
    (8917, [ENTRY 1 False, REDUCE sym_function_definition 16 0 838]),
    (8919, [ENTRY 1 True, REDUCE sym_function_definition 16 0 839]),
    (8921, [ENTRY 1 False, REDUCE sym_function_definition 16 0 839]),
    (8923, [ENTRY 1 True, REDUCE sym_function_definition 16 0 840]),
    (8925, [ENTRY 1 False, REDUCE sym_function_definition 16 0 840]),
    (8927, [ENTRY 1 True, REDUCE sym_function_definition 16 0 841]),
    (8929, [ENTRY 1 False, REDUCE sym_function_definition 16 0 841]),
    (8931, [ENTRY 1 True, REDUCE sym_function_definition 16 0 842]),
    (8933, [ENTRY 1 False, REDUCE sym_function_definition 16 0 842]),
    (8935, [ENTRY 1 True, REDUCE sym_function_definition 16 0 843]),
    (8937, [ENTRY 1 False, REDUCE sym_function_definition 16 0 843]),
    (8939, [ENTRY 1 True, REDUCE sym_function_definition 16 0 844]),
    (8941, [ENTRY 1 False, REDUCE sym_function_definition 16 0 844]),
    (8943, [ENTRY 1 True, REDUCE sym_function_definition 16 0 845]),
    (8945, [ENTRY 1 False, REDUCE sym_function_definition 16 0 845]),
    (8947, [ENTRY 1 True, REDUCE sym_function_definition 16 0 846]),
    (8949, [ENTRY 1 False, REDUCE sym_function_definition 16 0 846]),
    (8951, [ENTRY 1 True, REDUCE sym_function_definition 16 0 847]),
    (8953, [ENTRY 1 False, REDUCE sym_function_definition 16 0 847]),
    (8955, [ENTRY 1 True, REDUCE sym_function_definition 16 0 848]),
    (8957, [ENTRY 1 False, REDUCE sym_function_definition 16 0 848]),
    (8959, [ENTRY 1 True, REDUCE sym_function_definition 16 0 849]),
    (8961, [ENTRY 1 False, REDUCE sym_function_definition 16 0 849]),
    (8963, [ENTRY 1 True, REDUCE sym_function_definition 16 0 850]),
    (8965, [ENTRY 1 False, REDUCE sym_function_definition 16 0 850]),
    (8967, [ENTRY 1 True, REDUCE sym_function_definition 16 0 851]),
    (8969, [ENTRY 1 False, REDUCE sym_function_definition 16 0 851]),
    (8971, [ENTRY 1 True, REDUCE sym_function_definition 16 0 852]),
    (8973, [ENTRY 1 False, REDUCE sym_function_definition 16 0 852]),
    (8975, [ENTRY 1 True, REDUCE sym_function_definition 16 0 853]),
    (8977, [ENTRY 1 False, REDUCE sym_function_definition 16 0 853]),
    (8979, [ENTRY 1 True, REDUCE sym_function_definition 16 0 854]),
    (8981, [ENTRY 1 False, REDUCE sym_function_definition 16 0 854]),
    (8983, [ENTRY 1 True, REDUCE sym_function_definition 16 0 855]),
    (8985, [ENTRY 1 False, REDUCE sym_function_definition 16 0 855]),
    (8987, [ENTRY 1 True, REDUCE sym_function_definition 16 0 856]),
    (8989, [ENTRY 1 False, REDUCE sym_function_definition 16 0 856]),
    (8991, [ENTRY 1 True, REDUCE sym_function_definition 16 0 857]),
    (8993, [ENTRY 1 False, REDUCE sym_function_definition 16 0 857]),
    (8995, [ENTRY 1 True, REDUCE sym_function_definition 16 0 858]),
    (8997, [ENTRY 1 False, REDUCE sym_function_definition 16 0 858]),
    (8999, [ENTRY 1 True, REDUCE sym_function_definition 16 0 859]),
    (9001, [ENTRY 1 False, REDUCE sym_function_definition 16 0 859]),
    (9003, [ENTRY 1 True, REDUCE sym_function_definition 16 0 860]),
    (9005, [ENTRY 1 False, REDUCE sym_function_definition 16 0 860]),
    (9007, [ENTRY 1 True, REDUCE sym_function_definition 16 0 861]),
    (9009, [ENTRY 1 False, REDUCE sym_function_definition 16 0 861]),
    (9011, [ENTRY 1 True, REDUCE sym_function_definition 16 0 862]),
    (9013, [ENTRY 1 False, REDUCE sym_function_definition 16 0 862]),
    (9015, [ENTRY 1 True, REDUCE sym_function_definition 16 0 863]),
    (9017, [ENTRY 1 False, REDUCE sym_function_definition 16 0 863]),
    (9019, [ENTRY 1 True, REDUCE sym_function_definition 16 0 864]),
    (9021, [ENTRY 1 False, REDUCE sym_function_definition 16 0 864]),
    (9023, [ENTRY 1 True, REDUCE sym_function_definition 16 0 865]),
    (9025, [ENTRY 1 False, REDUCE sym_function_definition 16 0 865]),
    (9027, [ENTRY 1 True, REDUCE sym_function_definition 16 0 866]),
    (9029, [ENTRY 1 False, REDUCE sym_function_definition 16 0 866]),
    (9031, [ENTRY 1 True, REDUCE sym_function_definition 16 0 867]),
    (9033, [ENTRY 1 False, REDUCE sym_function_definition 16 0 867]),
    (9035, [ENTRY 1 True, REDUCE sym_function_definition 16 0 868]),
    (9037, [ENTRY 1 False, REDUCE sym_function_definition 16 0 868]),
    (9039, [ENTRY 1 True, REDUCE sym_function_definition 16 0 869]),
    (9041, [ENTRY 1 False, REDUCE sym_function_definition 16 0 869]),
    (9043, [ENTRY 1 True, REDUCE sym_function_definition 16 0 870]),
    (9045, [ENTRY 1 False, REDUCE sym_function_definition 16 0 870]),
    (9047, [ENTRY 1 True, REDUCE sym_function_definition 16 0 871]),
    (9049, [ENTRY 1 False, REDUCE sym_function_definition 16 0 871]),
    (9051, [ENTRY 1 True, REDUCE sym_function_definition 16 0 872]),
    (9053, [ENTRY 1 False, REDUCE sym_function_definition 16 0 872]),
    (9055, [ENTRY 1 True, REDUCE sym_function_definition 16 0 873]),
    (9057, [ENTRY 1 False, REDUCE sym_function_definition 16 0 873]),
    (9059, [ENTRY 1 True, REDUCE sym_function_definition 16 0 874]),
    (9061, [ENTRY 1 False, REDUCE sym_function_definition 16 0 874]),
    (9063, [ENTRY 1 True, REDUCE sym_function_definition 16 0 875]),
    (9065, [ENTRY 1 False, REDUCE sym_function_definition 16 0 875]),
    (9067, [ENTRY 1 True, REDUCE sym_function_definition 16 0 876]),
    (9069, [ENTRY 1 False, REDUCE sym_function_definition 16 0 876]),
    (9071, [ENTRY 1 True, REDUCE sym_function_definition 16 0 877]),
    (9073, [ENTRY 1 False, REDUCE sym_function_definition 16 0 877]),
    (9075, [ENTRY 1 True, REDUCE sym_function_definition 16 0 878]),
    (9077, [ENTRY 1 False, REDUCE sym_function_definition 16 0 878]),
    (9079, [ENTRY 1 True, REDUCE sym_function_definition 16 0 879]),
    (9081, [ENTRY 1 False, REDUCE sym_function_definition 16 0 879]),
    (9083, [ENTRY 1 True, REDUCE sym_function_definition 16 0 880]),
    (9085, [ENTRY 1 False, REDUCE sym_function_definition 16 0 880]),
    (9087, [ENTRY 1 True, REDUCE sym_function_definition 16 0 881]),
    (9089, [ENTRY 1 False, REDUCE sym_function_definition 16 0 881])]"

definition parse_actions_30 :: "(nat \<times> TSParseActionEntry list) list" where "parse_actions_30 = [
    (9091, [ENTRY 1 True, REDUCE sym_argument_list 4 0 0]),
    (9093, [ENTRY 1 False, REDUCE sym_argument_list 4 0 0]),
    (9095, [ENTRY 1 True, REDUCE sym_function_definition 16 0 882]),
    (9097, [ENTRY 1 False, REDUCE sym_function_definition 16 0 882]),
    (9099, [ENTRY 1 True, REDUCE sym_function_definition 16 0 883]),
    (9101, [ENTRY 1 False, REDUCE sym_function_definition 16 0 883]),
    (9103, [ENTRY 1 True, REDUCE sym_function_definition 16 0 884]),
    (9105, [ENTRY 1 False, REDUCE sym_function_definition 16 0 884]),
    (9107, [ENTRY 1 True, REDUCE sym_function_definition 16 0 885]),
    (9109, [ENTRY 1 False, REDUCE sym_function_definition 16 0 885]),
    (9111, [ENTRY 1 True, REDUCE sym_function_definition 16 0 886]),
    (9113, [ENTRY 1 False, REDUCE sym_function_definition 16 0 886]),
    (9115, [ENTRY 1 True, REDUCE sym_function_definition 16 0 887]),
    (9117, [ENTRY 1 False, REDUCE sym_function_definition 16 0 887]),
    (9119, [ENTRY 1 True, REDUCE sym_argument_list 4 0 36]),
    (9121, [ENTRY 1 False, REDUCE sym_argument_list 4 0 36]),
    (9123, [ENTRY 1 True, REDUCE sym_function_definition 16 0 888]),
    (9125, [ENTRY 1 False, REDUCE sym_function_definition 16 0 888]),
    (9127, [ENTRY 1 True, REDUCE sym_function_definition 16 0 889]),
    (9129, [ENTRY 1 False, REDUCE sym_function_definition 16 0 889]),
    (9131, [ENTRY 1 True, REDUCE sym_function_definition 16 0 890]),
    (9133, [ENTRY 1 False, REDUCE sym_function_definition 16 0 890]),
    (9135, [ENTRY 1 True, REDUCE sym_function_definition 16 0 891]),
    (9137, [ENTRY 1 False, REDUCE sym_function_definition 16 0 891]),
    (9139, [ENTRY 1 True, REDUCE sym_function_definition 16 0 892]),
    (9141, [ENTRY 1 False, REDUCE sym_function_definition 16 0 892]),
    (9143, [ENTRY 1 True, REDUCE sym_function_definition 16 0 893]),
    (9145, [ENTRY 1 False, REDUCE sym_function_definition 16 0 893]),
    (9147, [ENTRY 1 True, REDUCE sym_function_definition 16 0 894]),
    (9149, [ENTRY 1 False, REDUCE sym_function_definition 16 0 894]),
    (9151, [ENTRY 1 True, REDUCE sym_function_definition 16 0 895]),
    (9153, [ENTRY 1 False, REDUCE sym_function_definition 16 0 895]),
    (9155, [ENTRY 1 True, REDUCE sym_function_definition 16 0 896]),
    (9157, [ENTRY 1 False, REDUCE sym_function_definition 16 0 896]),
    (9159, [ENTRY 1 True, REDUCE sym_function_definition 16 0 897]),
    (9161, [ENTRY 1 False, REDUCE sym_function_definition 16 0 897]),
    (9163, [ENTRY 1 True, REDUCE sym_function_definition 16 0 898]),
    (9165, [ENTRY 1 False, REDUCE sym_function_definition 16 0 898]),
    (9167, [ENTRY 1 True, REDUCE sym_function_definition 16 0 899]),
    (9169, [ENTRY 1 False, REDUCE sym_function_definition 16 0 899]),
    (9171, [ENTRY 1 True, REDUCE sym_function_definition 16 0 900]),
    (9173, [ENTRY 1 False, REDUCE sym_function_definition 16 0 900]),
    (9175, [ENTRY 1 True, REDUCE sym_function_definition 16 0 901]),
    (9177, [ENTRY 1 False, REDUCE sym_function_definition 16 0 901]),
    (9179, [ENTRY 1 True, REDUCE sym_function_definition 16 0 902]),
    (9181, [ENTRY 1 False, REDUCE sym_function_definition 16 0 902]),
    (9183, [ENTRY 1 True, REDUCE sym_function_definition 16 0 903]),
    (9185, [ENTRY 1 False, REDUCE sym_function_definition 16 0 903]),
    (9187, [ENTRY 1 True, REDUCE sym_function_definition 17 0 904]),
    (9189, [ENTRY 1 False, REDUCE sym_function_definition 17 0 904]),
    (9191, [ENTRY 1 True, REDUCE sym_function_definition 17 0 905]),
    (9193, [ENTRY 1 False, REDUCE sym_function_definition 17 0 905]),
    (9195, [ENTRY 1 True, REDUCE sym_function_definition 17 0 906]),
    (9197, [ENTRY 1 False, REDUCE sym_function_definition 17 0 906]),
    (9199, [ENTRY 1 True, REDUCE sym_function_definition 17 0 907]),
    (9201, [ENTRY 1 False, REDUCE sym_function_definition 17 0 907]),
    (9203, [ENTRY 1 True, REDUCE sym_function_definition 17 0 908]),
    (9205, [ENTRY 1 False, REDUCE sym_function_definition 17 0 908]),
    (9207, [ENTRY 1 True, REDUCE sym_function_definition 17 0 909]),
    (9209, [ENTRY 1 False, REDUCE sym_function_definition 17 0 909]),
    (9211, [ENTRY 1 True, REDUCE sym_function_definition 17 0 910]),
    (9213, [ENTRY 1 False, REDUCE sym_function_definition 17 0 910]),
    (9215, [ENTRY 1 True, REDUCE sym_function_definition 17 0 911]),
    (9217, [ENTRY 1 False, REDUCE sym_function_definition 17 0 911]),
    (9219, [ENTRY 1 True, REDUCE sym_function_definition 17 0 912]),
    (9221, [ENTRY 1 False, REDUCE sym_function_definition 17 0 912]),
    (9223, [ENTRY 1 True, REDUCE sym_function_definition 17 0 913]),
    (9225, [ENTRY 1 False, REDUCE sym_function_definition 17 0 913]),
    (9227, [ENTRY 1 False, SHIFT 7962]), (9229, [ENTRY 1 True, SHIFT 3642]),
    (9231, [ENTRY 1 True, SHIFT 6915]), (9233, [ENTRY 1 False, SHIFT 7958]),
    (9235, [ENTRY 1 False, SHIFT 7963]), (9237, [ENTRY 1 True, SHIFT 3646]),
    (9239, [ENTRY 1 False, SHIFT 3826]), (9241, [ENTRY 1 False, REDUCE sym_pattern_list 3 0 0]),
    (9243, [ENTRY 1 False, REDUCE sym_pattern_list 2 0 0]), (9245, [ENTRY 1 True, SHIFT 3982]),
    (9247, [ENTRY 1 True, SHIFT 3908]), (9249, [ENTRY 1 True, SHIFT 12410]),
    (9251, [ENTRY 1 False, SHIFT 8038]), (9253, [ENTRY 1 True, SHIFT 3656]),
    (9255, [ENTRY 1 True, SHIFT 11870]), (9257, [ENTRY 1 True, SHIFT 6916]),
    (9259, [ENTRY 1 False, SHIFT 8043]), (9261, [ENTRY 1 False, SHIFT 8054]),
    (9263, [ENTRY 1 True, SHIFT 3652]), (9265, [ENTRY 1 False, SHIFT 3906]),
    (9267, [ENTRY 1 False, SHIFT 12113]), (9269, [ENTRY 1 True, SHIFT 9569]),
    (9271, [ENTRY 1 True, SHIFT 3995]), (9273, [ENTRY 1 True, SHIFT 3975]),
    (9275, [ENTRY 1 True, SHIFT 12434]), (9277, [ENTRY 1 True, SHIFT 12104]),
    (9279, [ENTRY 1 True, REDUCE sym_primary_expression 1 0 0]),
    (9281, [ENTRY 1 False, REDUCE sym_primary_expression 1 0 0]),
    (9283, [ENTRY 2 True, REDUCE sym_primary_expression 1 0 0, SHIFT 2950]),
    (9286, [ENTRY 1 False, SHIFT 2142]), (9288, [ENTRY 1 True, SHIFT 2375]),
    (9290, [ENTRY 1 True, REDUCE sym__patterns 2 0 0]), (9292, [ENTRY 1 False, SHIFT 8058]),
    (9294, [ENTRY 1 True, SHIFT 3639]), (9296, [ENTRY 1 True, SHIFT 6923]),
    (9298, [ENTRY 1 False, SHIFT 8023]), (9300, [ENTRY 1 False, SHIFT 8024]),
    (9302, [ENTRY 1 True, SHIFT 3643]), (9304, [ENTRY 1 True, REDUCE sym__patterns 3 0 0]),
    (9306, [ENTRY 1 False, SHIFT 3930]),
    (9308, [ENTRY 2 True, REDUCE sym_pattern 1 0 0, REDUCE sym_primary_expression 1 0 0]),
    (9311, [ENTRY 1 True, REDUCE sym__named_expression_lhs 1 0 0]),
    (9313, [ENTRY 2 False, REDUCE sym_pattern 1 0 0, REDUCE sym_primary_expression 1 0 0]),
    (9316, [ENTRY 1 True, SHIFT 2037]), (9318, [ENTRY 1 False, REDUCE sym_pattern 1 0 0]),
    (9320, [ENTRY 2 False, REDUCE sym_primary_expression 1 0 0, REDUCE sym__intersection_operand 1 0 0]),
    (9323, [ENTRY 1 True, REDUCE sym_pattern 1 0 0]), (9325, [ENTRY 1 True, SHIFT 2950]),
    (9327, [ENTRY 1 True, REDUCE sym_list_splat_pattern 2 0 0]),
    (9329, [ENTRY 1 True, REDUCE sym_splat_type 2 0 0]),
    (9331, [ENTRY 2 True, REDUCE sym_primary_expression 1 0 0, REDUCE sym_list_splat_pattern 2 0 0]),
    (9334, [ENTRY 2 False, REDUCE sym_primary_expression 1 0 0, REDUCE sym_list_splat_pattern 2 0 0]),
    (9337, [ENTRY 1 False, REDUCE sym_splat_type 2 0 0]),
    (9339, [ENTRY 1 False, REDUCE sym_list_splat_pattern 2 0 0]),
    (9341, [ENTRY 3 False, REDUCE sym_primary_expression 1 0 0, REDUCE sym__intersection_operand 1 0 0, REDUCE sym_list_splat_pattern 2 0 0]),
    (9345, [ENTRY 1 True, SHIFT 6889]), (9347, [ENTRY 1 True, REDUCE sym_string 3 0 0]),
    (9349, [ENTRY 1 False, REDUCE sym_string 3 0 0]), (9351, [ENTRY 1 False, SHIFT 7993]),
    (9353, [ENTRY 1 False, SHIFT 7995]), (9355, [ENTRY 1 False, SHIFT 7992]),
    (9357, [ENTRY 1 False, SHIFT 3887]), (9359, [ENTRY 1 False, SHIFT 8049]),
    (9361, [ENTRY 1 False, SHIFT 8021]), (9363, [ENTRY 1 False, SHIFT 8022]),
    (9365, [ENTRY 1 False, SHIFT 3928]), (9367, [ENTRY 1 True, REDUCE sym_string 2 0 0]),
    (9369, [ENTRY 1 False, REDUCE sym_string 2 0 0]),
    (9371, [ENTRY 1 True, REDUCE sym_list 2 0 0]),
    (9373, [ENTRY 2 True, REDUCE sym_list_pattern 2 0 0, REDUCE sym_list 2 0 0]),
    (9376, [ENTRY 1 False, REDUCE sym_list 2 0 0]),
    (9378, [ENTRY 1 False, REDUCE sym_list_pattern 2 0 0]),
    (9380, [ENTRY 1 True, REDUCE sym_list_pattern 2 0 0]), (9382, [ENTRY 1 False, SHIFT 7931]),
    (9384, [ENTRY 1 True, REDUCE sym_primary_expression 1 1 0]),
    (9386, [ENTRY 1 False, REDUCE sym_primary_expression 1 1 0]),
    (9388, [ENTRY 2 True, REDUCE sym_primary_expression 1 1 0, SHIFT 2950]),
    (9391, [ENTRY 1 True, REDUCE sym_mlir_fragment 3 0 0]),
    (9393, [ENTRY 1 False, REDUCE sym_mlir_fragment 3 0 0]),
    (9395, [ENTRY 1 True, REDUCE sym_subscript 6 0 88]),
    (9397, [ENTRY 1 False, REDUCE sym_subscript 6 0 88]),
    (9399, [ENTRY 2 True, REDUCE sym_primary_expression 1 (- 1) 0, REDUCE sym_list_splat_pattern 2 0 0])]"

definition parse_actions_31 :: "(nat \<times> TSParseActionEntry list) list" where "parse_actions_31 = [

    (9402, [ENTRY 2 False, REDUCE sym_primary_expression 1 (- 1) 0, REDUCE sym_list_splat_pattern 2 0 0]),
    (9405, [ENTRY 1 True, REDUCE sym_generator_expression 4 0 37]),
    (9407, [ENTRY 1 False, REDUCE sym_generator_expression 4 0 37]),
    (9409, [ENTRY 1 True, REDUCE sym_mlir_fragment 2 0 0]),
    (9411, [ENTRY 1 False, REDUCE sym_mlir_fragment 2 0 0]),
    (9413, [ENTRY 1 True, REDUCE sym_subscript 5 0 54]),
    (9415, [ENTRY 1 False, REDUCE sym_subscript 5 0 54]),
    (9417, [ENTRY 1 True, REDUCE sym_subscript 5 0 86]),
    (9419, [ENTRY 1 False, REDUCE sym_subscript 5 0 86]),
    (9421, [ENTRY 1 True, REDUCE sym_subscript 5 0 55]),
    (9423, [ENTRY 1 False, REDUCE sym_subscript 5 0 55]),
    (9425, [ENTRY 1 True, REDUCE sym_subscript 5 0 88]),
    (9427, [ENTRY 1 False, REDUCE sym_subscript 5 0 88]),
    (9429, [ENTRY 1 True, REDUCE sym_subscript 4 0 54]),
    (9431, [ENTRY 1 False, REDUCE sym_subscript 4 0 54]),
    (9433, [ENTRY 1 True, REDUCE sym_subscript 4 0 55]),
    (9435, [ENTRY 1 False, REDUCE sym_subscript 4 0 55]),
    (9437, [ENTRY 1 True, REDUCE sym_attribute 3 0 24]),
    (9439, [ENTRY 1 False, REDUCE sym_attribute 3 0 24]),
    (9441, [ENTRY 1 True, REDUCE sym_primary_expression 1 0 2]),
    (9443, [ENTRY 2 True, REDUCE sym_pattern 1 0 0, REDUCE sym_primary_expression 1 0 2]),
    (9446, [ENTRY 1 False, REDUCE sym_primary_expression 1 0 2]),
    (9448, [ENTRY 1 True, REDUCE sym_primary_expression 1 (- 1) 0]),
    (9450, [ENTRY 2 True, REDUCE sym_pattern 1 0 0, REDUCE sym_primary_expression 1 (- 1) 0]),
    (9453, [ENTRY 1 False, REDUCE sym_primary_expression 1 (- 1) 0]),
    (9455, [ENTRY 1 True, REDUCE sym_tuple 2 0 0]),
    (9457, [ENTRY 2 True, REDUCE sym_tuple_pattern 2 0 0, REDUCE sym_tuple 2 0 0]),
    (9460, [ENTRY 1 False, REDUCE sym_tuple 2 0 0]),
    (9462, [ENTRY 1 False, REDUCE sym_tuple_pattern 2 0 0]),
    (9464, [ENTRY 1 True, REDUCE sym_tuple_pattern 2 0 0]),
    (9466, [ENTRY 1 True, REDUCE sym_subscript 3 0 7]),
    (9468, [ENTRY 1 False, REDUCE sym_subscript 3 0 7]),
    (9470, [ENTRY 1 True, REDUCE sym_subscript 6 0 86]),
    (9472, [ENTRY 1 False, REDUCE sym_subscript 6 0 86]),
    (9474, [ENTRY 1 True, REDUCE sym_call 3 0 26]),
    (9476, [ENTRY 1 False, REDUCE sym_call 3 0 26]),
    (9478, [ENTRY 1 True, REDUCE sym_call 2 0 10]),
    (9480, [ENTRY 1 False, REDUCE sym_call 2 0 10]), (9482, [ENTRY 1 False, SHIFT 8010]),
    (9484, [ENTRY 1 False, SHIFT 8000]), (9486, [ENTRY 1 False, SHIFT 8002]),
    (9488, [ENTRY 1 False, SHIFT 3889]), (9490, [ENTRY 1 False, SHIFT 7221]),
    (9492, [ENTRY 1 False, SHIFT 7226]), (9494, [ENTRY 1 False, SHIFT 7227]),
    (9496, [ENTRY 1 False, SHIFT 1867]), (9498, [ENTRY 1 False, SHIFT 7689]),
    (9500, [ENTRY 1 False, SHIFT 7558]), (9502, [ENTRY 1 False, SHIFT 7559]),
    (9504, [ENTRY 1 False, SHIFT 2002]), (9506, [ENTRY 1 False, SHIFT 7736]),
    (9508, [ENTRY 1 False, SHIFT 7734]), (9510, [ENTRY 1 False, SHIFT 7735]),
    (9512, [ENTRY 1 False, SHIFT 7272]), (9514, [ENTRY 1 False, SHIFT 7151]),
    (9516, [ENTRY 1 False, SHIFT 7152]), (9518, [ENTRY 1 False, SHIFT 1868]),
    (9520, [ENTRY 1 False, SHIFT 7506]), (9522, [ENTRY 1 False, SHIFT 7478]),
    (9524, [ENTRY 1 False, SHIFT 7479]), (9526, [ENTRY 1 False, SHIFT 8027]),
    (9528, [ENTRY 1 False, SHIFT 8025]), (9530, [ENTRY 1 False, SHIFT 8026]),
    (9532, [ENTRY 1 False, SHIFT 3936]), (9534, [ENTRY 1 False, SHIFT 6870]),
    (9536, [ENTRY 1 False, SHIFT 6865]), (9538, [ENTRY 1 False, SHIFT 6866]),
    (9540, [ENTRY 1 False, SHIFT 1863]), (9542, [ENTRY 1 False, SHIFT 7674]),
    (9544, [ENTRY 1 False, SHIFT 7641]), (9546, [ENTRY 1 False, SHIFT 7642]),
    (9548, [ENTRY 1 False, SHIFT 7814]), (9550, [ENTRY 1 False, SHIFT 7821]),
    (9552, [ENTRY 1 False, SHIFT 7811]), (9554, [ENTRY 1 False, SHIFT 2105]),
    (9556, [ENTRY 1 True, SHIFT 9469]), (9558, [ENTRY 1 True, SHIFT 3684]),
    (9560, [ENTRY 1 True, REDUCE sym_expression 1 0 0]), (9562, [ENTRY 1 False, SHIFT 6914]),
    (9564, [ENTRY 1 True, SHIFT 6917]), (9566, [ENTRY 1 True, SHIFT 6918]),
    (9568, [ENTRY 1 True, SHIFT 2830]), (9570, [ENTRY 1 True, SHIFT 6919]),
    (9572, [ENTRY 1 False, REDUCE sym_expression 1 0 0]), (9574, [ENTRY 1 True, SHIFT 6914]),
    (9576, [ENTRY 1 False, SHIFT 6920]), (9578, [ENTRY 1 True, SHIFT 6921]),
    (9580, [ENTRY 1 True, SHIFT 6920]), (9582, [ENTRY 1 True, SHIFT 1877]),
    (9584, [ENTRY 1 True, SHIFT 12615]), (9586, [ENTRY 1 True, SHIFT 6922]),
    (9588, [ENTRY 1 True, SHIFT 6805]), (9590, [ENTRY 1 False, SHIFT 6918]),
    (9592, [ENTRY 1 False, SHIFT 7119]), (9594, [ENTRY 1 False, SHIFT 7113]),
    (9596, [ENTRY 1 False, SHIFT 7301]), (9598, [ENTRY 1 False, SHIFT 1873]),
    (9600, [ENTRY 1 False, SHIFT 7036]), (9602, [ENTRY 1 False, SHIFT 6971]),
    (9604, [ENTRY 1 False, SHIFT 6984]), (9606, [ENTRY 1 False, SHIFT 1864]),
    (9608, [ENTRY 1 True, SHIFT 9491]), (9610, [ENTRY 1 True, SHIFT 3725]),
    (9612, [ENTRY 1 False, SHIFT 6828]), (9614, [ENTRY 1 True, SHIFT 6864]),
    (9616, [ENTRY 1 True, SHIFT 6881]), (9618, [ENTRY 1 True, SHIFT 2835]),
    (9620, [ENTRY 1 True, SHIFT 6892]), (9622, [ENTRY 1 True, SHIFT 6828]),
    (9624, [ENTRY 1 False, SHIFT 6896]), (9626, [ENTRY 1 True, SHIFT 6904]),
    (9628, [ENTRY 1 True, SHIFT 6896]), (9630, [ENTRY 1 True, SHIFT 1883]),
    (9632, [ENTRY 1 True, SHIFT 6814]), (9634, [ENTRY 1 True, SHIFT 6806]),
    (9636, [ENTRY 1 False, SHIFT 6881]), (9638, [ENTRY 1 True, SHIFT 9508]),
    (9640, [ENTRY 1 True, SHIFT 3742]), (9642, [ENTRY 1 False, SHIFT 6897]),
    (9644, [ENTRY 1 True, SHIFT 6898]), (9646, [ENTRY 1 True, SHIFT 6899]),
    (9648, [ENTRY 1 True, SHIFT 2834]), (9650, [ENTRY 1 True, SHIFT 6900]),
    (9652, [ENTRY 1 True, SHIFT 6897]), (9654, [ENTRY 1 False, SHIFT 6901]),
    (9656, [ENTRY 1 True, SHIFT 6902]), (9658, [ENTRY 1 True, SHIFT 6901]),
    (9660, [ENTRY 1 True, SHIFT 1882]), (9662, [ENTRY 1 True, SHIFT 6903]),
    (9664, [ENTRY 1 True, SHIFT 6802]), (9666, [ENTRY 1 False, SHIFT 6899]),
    (9668, [ENTRY 1 True, REDUCE aux_sym_concatenated_string_repeat1 2 0 0]),
    (9670, [ENTRY 1 False, REDUCE aux_sym_concatenated_string_repeat1 2 0 0]),
    (9672, [ENTRY 2 True, REDUCE aux_sym_concatenated_string_repeat1 2 0 0, SHIFT_REPEAT 9582]),
    (9675, [ENTRY 1 True, REDUCE sym_concatenated_string 2 0 0]),
    (9677, [ENTRY 1 False, REDUCE sym_concatenated_string 2 0 0]),
    (9679, [ENTRY 1 True, SHIFT 9455]), (9681, [ENTRY 1 True, SHIFT 3675]),
    (9683, [ENTRY 1 False, SHIFT 6905]), (9685, [ENTRY 1 True, SHIFT 6906]),
    (9687, [ENTRY 1 True, SHIFT 6907]), (9689, [ENTRY 1 True, SHIFT 2829]),
    (9691, [ENTRY 1 True, SHIFT 6908]), (9693, [ENTRY 1 True, SHIFT 6905]),
    (9695, [ENTRY 1 False, SHIFT 6909]), (9697, [ENTRY 1 True, SHIFT 6910]),
    (9699, [ENTRY 1 True, SHIFT 6909]), (9701, [ENTRY 1 True, SHIFT 1885]),
    (9703, [ENTRY 1 True, SHIFT 6911]), (9705, [ENTRY 1 True, SHIFT 6804])]"

definition parse_actions_32 :: "(nat \<times> TSParseActionEntry list) list" where "parse_actions_32 = [
    (9707, [ENTRY 1 False, SHIFT 6907]),
    (9709, [ENTRY 2 True, REDUCE aux_sym_concatenated_string_repeat1 2 0 0, SHIFT_REPEAT 9603]),
    (9712, [ENTRY 1 True, REDUCE sym_binary_operator 3 0 22]),
    (9714, [ENTRY 1 False, REDUCE sym_binary_operator 3 0 22]),
    (9716, [ENTRY 2 True, REDUCE sym_binary_operator 3 0 22, SHIFT 1877]),
    (9719, [ENTRY 1 True, REDUCE sym_unary_operator 2 0 9]),
    (9721, [ENTRY 1 False, REDUCE sym_unary_operator 2 0 9]),
    (9723, [ENTRY 2 True, REDUCE sym_unary_operator 2 0 9, SHIFT 1877]),
    (9726, [ENTRY 1 True, REDUCE sym_await 2 0 0]),
    (9728, [ENTRY 1 False, REDUCE sym_await 2 0 0]),
    (9730, [ENTRY 2 True, REDUCE sym_await 2 0 0, SHIFT 1877]),
    (9733, [ENTRY 1 True, REDUCE aux_sym_comparison_operator_repeat1 2 0 25]),
    (9735, [ENTRY 1 False, REDUCE aux_sym_comparison_operator_repeat1 2 0 25]),
    (9737, [ENTRY 2 True, REDUCE aux_sym_concatenated_string_repeat1 2 0 0, SHIFT_REPEAT 9583]),
    (9740, [ENTRY 2 True, REDUCE aux_sym_concatenated_string_repeat1 2 0 0, SHIFT_REPEAT 9554]),
    (9743, [ENTRY 2 True, REDUCE sym_unary_operator 2 0 9, SHIFT 1885]),
    (9746, [ENTRY 1 True, REDUCE sym_struct_literal 5 (- 1) 0]),
    (9748, [ENTRY 1 False, REDUCE sym_struct_literal 5 (- 1) 0]),
    (9750, [ENTRY 1 True, REDUCE sym_mlir_type 5 0 0]),
    (9752, [ENTRY 1 False, REDUCE sym_mlir_type 5 0 0]),
    (9754, [ENTRY 1 True, REDUCE sym_list_comprehension 4 0 37]),
    (9756, [ENTRY 1 False, REDUCE sym_list_comprehension 4 0 37]),
    (9758, [ENTRY 1 True, REDUCE sym_dictionary 4 0 0]),
    (9760, [ENTRY 1 False, REDUCE sym_dictionary 4 0 0]),
    (9762, [ENTRY 1 True, REDUCE sym_list 3 0 0]), (9764, [ENTRY 1 False, REDUCE sym_list 3 0 0]),
    (9766, [ENTRY 1 True, REDUCE sym_struct_literal 4 (- 1) 0]),
    (9768, [ENTRY 1 False, REDUCE sym_struct_literal 4 (- 1) 0]),
    (9770, [ENTRY 1 True, REDUCE sym_dictionary 3 0 0]),
    (9772, [ENTRY 1 False, REDUCE sym_dictionary 3 0 0]),
    (9774, [ENTRY 1 True, REDUCE sym_set_comprehension 4 0 37]),
    (9776, [ENTRY 1 False, REDUCE sym_set_comprehension 4 0 37]),
    (9778, [ENTRY 1 True, REDUCE sym_tuple 3 0 0]),
    (9780, [ENTRY 1 False, REDUCE sym_tuple 3 0 0]),
    (9782, [ENTRY 1 True, REDUCE sym_dictionary_comprehension 4 0 37]),
    (9784, [ENTRY 1 False, REDUCE sym_dictionary_comprehension 4 0 37]),
    (9786, [ENTRY 1 True, REDUCE sym_struct_literal 3 (- 1) 0]),
    (9788, [ENTRY 1 False, REDUCE sym_struct_literal 3 (- 1) 0]),
    (9790, [ENTRY 1 True, SHIFT 2048]), (9792, [ENTRY 1 True, REDUCE sym_mlir_type 4 0 0]),
    (9794, [ENTRY 1 False, REDUCE sym_mlir_type 4 0 0]),
    (9796, [ENTRY 1 True, REDUCE sym_mlir_type 6 0 0]),
    (9798, [ENTRY 1 False, REDUCE sym_mlir_type 6 0 0]),
    (9800, [ENTRY 1 True, REDUCE sym_set 3 0 0]), (9802, [ENTRY 1 False, REDUCE sym_set 3 0 0]),
    (9804, [ENTRY 2 True, REDUCE sym_primary_expression 1 0 0, REDUCE sym__intersection_operand 1 0 0]),
    (9807, [ENTRY 3 True, REDUCE sym_primary_expression 1 0 0, REDUCE sym__intersection_operand 1 0 0, REDUCE sym_list_splat_pattern 2 0 0]),
    (9811, [ENTRY 2 True, REDUCE sym_await 2 0 0, SHIFT 1883]),
    (9814, [ENTRY 2 True, REDUCE sym_binary_operator 3 0 22, SHIFT 1882]),
    (9817, [ENTRY 2 True, REDUCE sym_binary_operator 3 0 22, SHIFT 1883]),
    (9820, [ENTRY 2 True, REDUCE sym_unary_operator 2 0 9, SHIFT 1883]),
    (9823, [ENTRY 2 True, REDUCE sym_unary_operator 2 0 9, SHIFT 1882]),
    (9826, [ENTRY 2 True, REDUCE sym_await 2 0 0, SHIFT 1882]),
    (9829, [ENTRY 2 True, REDUCE sym_binary_operator 3 0 22, SHIFT 1885]),
    (9832, [ENTRY 1 True, REDUCE sym_comptime_expression 2 0 0]),
    (9834, [ENTRY 1 False, REDUCE sym_comptime_expression 2 0 0]),
    (9836, [ENTRY 2 True, REDUCE sym_await 2 0 0, SHIFT 1885]),
    (9839, [ENTRY 1 True, REDUCE sym_mlir_type 3 0 18]),
    (9841, [ENTRY 1 False, REDUCE sym_mlir_type 3 0 18]),
    (9843, [ENTRY 1 True, REDUCE sym_mlir_type 3 0 0]),
    (9845, [ENTRY 1 False, REDUCE sym_mlir_type 3 0 0]),
    (9847, [ENTRY 1 True, REDUCE sym_dictionary 2 0 0]),
    (9849, [ENTRY 1 False, REDUCE sym_dictionary 2 0 0]),
    (9851, [ENTRY 1 True, REDUCE sym_dictionary 5 0 0]),
    (9853, [ENTRY 1 False, REDUCE sym_dictionary 5 0 0]),
    (9855, [ENTRY 1 True, REDUCE sym_parenthesized_expression 3 0 0]),
    (9857, [ENTRY 1 False, REDUCE sym_parenthesized_expression 3 0 0]),
    (9859, [ENTRY 1 True, SHIFT 2045]), (9861, [ENTRY 1 True, SHIFT 2081]),
    (9863, [ENTRY 1 True, SHIFT 9549]), (9865, [ENTRY 1 True, SHIFT 3673]),
    (9867, [ENTRY 1 False, SHIFT 6833]), (9869, [ENTRY 1 True, SHIFT 6834]),
    (9871, [ENTRY 1 True, SHIFT 6848]), (9873, [ENTRY 1 True, SHIFT 2833]),
    (9875, [ENTRY 1 True, SHIFT 6849]), (9877, [ENTRY 1 True, SHIFT 6833]),
    (9879, [ENTRY 1 True, SHIFT 6850]), (9881, [ENTRY 1 True, SHIFT 6851]),
    (9883, [ENTRY 1 True, SHIFT 2004]), (9885, [ENTRY 1 True, SHIFT 6852]),
    (9887, [ENTRY 1 True, SHIFT 6784]), (9889, [ENTRY 1 False, SHIFT 6848]),
    (9891, [ENTRY 1 False, SHIFT 6928]), (9893, [ENTRY 1 True, SHIFT 6811]),
    (9895, [ENTRY 1 True, SHIFT 6813]), (9897, [ENTRY 1 True, SHIFT 6810]),
    (9899, [ENTRY 1 True, SHIFT 6928]), (9901, [ENTRY 1 True, SHIFT 6871]),
    (9903, [ENTRY 1 True, SHIFT 6874]), (9905, [ENTRY 1 True, SHIFT 1992]),
    (9907, [ENTRY 1 True, SHIFT 6886]), (9909, [ENTRY 1 True, SHIFT 6807]),
    (9911, [ENTRY 1 False, SHIFT 6813]), (9913, [ENTRY 1 True, SHIFT 9471]),
    (9915, [ENTRY 1 True, SHIFT 3703]), (9917, [ENTRY 1 False, SHIFT 6820]),
    (9919, [ENTRY 1 True, SHIFT 6821]), (9921, [ENTRY 1 True, SHIFT 6822]),
    (9923, [ENTRY 1 True, SHIFT 2837]), (9925, [ENTRY 1 True, SHIFT 6823]),
    (9927, [ENTRY 1 True, SHIFT 6820]), (9929, [ENTRY 1 True, SHIFT 6824]),
    (9931, [ENTRY 1 True, SHIFT 6825]), (9933, [ENTRY 1 True, SHIFT 2099]),
    (9935, [ENTRY 1 True, SHIFT 6826]), (9937, [ENTRY 1 True, SHIFT 6792]),
    (9939, [ENTRY 1 False, SHIFT 6822]), (9941, [ENTRY 1 False, SHIFT 6856]),
    (9943, [ENTRY 1 True, SHIFT 6857]), (9945, [ENTRY 1 True, SHIFT 6858]),
    (9947, [ENTRY 1 True, SHIFT 6859]), (9949, [ENTRY 1 True, SHIFT 6856]),
    (9951, [ENTRY 1 True, SHIFT 6860]), (9953, [ENTRY 1 True, SHIFT 6861]),
    (9955, [ENTRY 1 True, SHIFT 2008]), (9957, [ENTRY 1 True, SHIFT 6863]),
    (9959, [ENTRY 1 True, SHIFT 6779]), (9961, [ENTRY 1 False, SHIFT 6858]),
    (9963, [ENTRY 1 False, SHIFT 6872]), (9965, [ENTRY 1 True, SHIFT 6873]),
    (9967, [ENTRY 1 True, SHIFT 6875]), (9969, [ENTRY 1 True, SHIFT 6876]),
    (9971, [ENTRY 1 True, SHIFT 6872]), (9973, [ENTRY 1 True, SHIFT 6877]),
    (9975, [ENTRY 1 True, SHIFT 6878]), (9977, [ENTRY 1 True, SHIFT 2020]),
    (9979, [ENTRY 1 True, SHIFT 6879]), (9981, [ENTRY 1 True, SHIFT 6785]),
    (9983, [ENTRY 1 False, SHIFT 6875]), (9985, [ENTRY 1 True, SHIFT 9498]),
    (9987, [ENTRY 1 True, SHIFT 3728]), (9989, [ENTRY 1 False, SHIFT 6839]),
    (9991, [ENTRY 1 True, SHIFT 6840]), (9993, [ENTRY 1 True, SHIFT 6841]),
    (9995, [ENTRY 1 True, SHIFT 2828]), (9997, [ENTRY 1 True, SHIFT 6842]),
    (9999, [ENTRY 1 True, SHIFT 6839]), (10001, [ENTRY 1 True, SHIFT 6843]),
    (10003, [ENTRY 1 True, SHIFT 6844]), (10005, [ENTRY 1 True, SHIFT 2016]),
    (10007, [ENTRY 1 True, SHIFT 6847]), (10009, [ENTRY 1 True, SHIFT 6772]),
    (10011, [ENTRY 1 False, SHIFT 6841]), (10013, [ENTRY 1 False, SHIFT 6882]),
    (10015, [ENTRY 1 True, SHIFT 6883]), (10017, [ENTRY 1 True, SHIFT 6884]),
    (10019, [ENTRY 1 True, SHIFT 6885]), (10021, [ENTRY 1 True, SHIFT 6882]),
    (10023, [ENTRY 1 True, SHIFT 6887])]"

definition parse_actions_33 :: "(nat \<times> TSParseActionEntry list) list" where "parse_actions_33 = [
    (10025, [ENTRY 1 True, SHIFT 6894]), (10027, [ENTRY 1 True, SHIFT 2009]),
    (10029, [ENTRY 1 True, SHIFT 6895]), (10031, [ENTRY 1 True, SHIFT 6767]),
    (10033, [ENTRY 1 False, SHIFT 6884]), (10035, [ENTRY 1 True, SHIFT 9474]),
    (10037, [ENTRY 1 True, SHIFT 3712]), (10039, [ENTRY 1 True, SHIFT 2832]),
    (10041, [ENTRY 2 True, REDUCE sym_binary_operator 3 0 22, SHIFT 1992]),
    (10044, [ENTRY 2 True, REDUCE sym_await 2 0 0, SHIFT 2004]),
    (10047, [ENTRY 2 True, REDUCE aux_sym_concatenated_string_repeat1 2 0 0, SHIFT_REPEAT 9561]),
    (10050, [ENTRY 2 True, REDUCE sym_unary_operator 2 0 9, SHIFT 2004]),
    (10053, [ENTRY 1 True, SHIFT 9458]), (10055, [ENTRY 1 True, SHIFT 3706]),
    (10057, [ENTRY 1 False, SHIFT 6912]), (10059, [ENTRY 1 True, SHIFT 6927]),
    (10061, [ENTRY 1 True, SHIFT 6929]), (10063, [ENTRY 1 True, SHIFT 2836]),
    (10065, [ENTRY 1 True, SHIFT 6930]), (10067, [ENTRY 1 True, SHIFT 6912]),
    (10069, [ENTRY 1 True, SHIFT 6812]), (10071, [ENTRY 1 True, SHIFT 6815]),
    (10073, [ENTRY 1 True, SHIFT 2103]), (10075, [ENTRY 1 True, SHIFT 6816]),
    (10077, [ENTRY 1 True, SHIFT 6801]), (10079, [ENTRY 1 False, SHIFT 6929]),
    (10081, [ENTRY 2 True, REDUCE sym_unary_operator 2 0 9, SHIFT 1992]),
    (10084, [ENTRY 2 True, REDUCE sym_binary_operator 3 0 22, SHIFT 2004]),
    (10087, [ENTRY 2 True, REDUCE sym_await 2 0 0, SHIFT 1992]),
    (10090, [ENTRY 1 True, SHIFT 2093]), (10092, [ENTRY 1 False, SHIFT 3203]),
    (10094, [ENTRY 1 True, SHIFT 8512]), (10096, [ENTRY 1 False, SHIFT 4052]),
    (10098, [ENTRY 2 True, REDUCE sym_binary_operator 3 0 22, SHIFT 2020]),
    (10101, [ENTRY 2 True, REDUCE sym_binary_operator 3 0 22, SHIFT 2099]),
    (10104, [ENTRY 2 True, REDUCE sym_binary_operator 3 0 22, SHIFT 2009]),
    (10107, [ENTRY 2 True, REDUCE sym_binary_operator 3 0 22, SHIFT 2008]),
    (10110, [ENTRY 2 True, REDUCE sym_unary_operator 2 0 9, SHIFT 2016]),
    (10113, [ENTRY 2 True, REDUCE sym_unary_operator 2 0 9, SHIFT 2009]),
    (10116, [ENTRY 2 True, REDUCE aux_sym_concatenated_string_repeat1 2 0 0, SHIFT_REPEAT 9612]),
    (10119, [ENTRY 2 True, REDUCE sym_await 2 0 0, SHIFT 2016]),
    (10122, [ENTRY 2 True, REDUCE sym_unary_operator 2 0 9, SHIFT 2020]),
    (10125, [ENTRY 2 True, REDUCE sym_await 2 0 0, SHIFT 2020]),
    (10128, [ENTRY 2 True, REDUCE sym_unary_operator 2 0 9, SHIFT 2099]),
    (10131, [ENTRY 2 True, REDUCE sym_binary_operator 3 0 22, SHIFT 2016]),
    (10134, [ENTRY 2 True, REDUCE sym_unary_operator 2 0 9, SHIFT 2008]),
    (10137, [ENTRY 2 True, REDUCE aux_sym_concatenated_string_repeat1 2 0 0, SHIFT_REPEAT 9610]),
    (10140, [ENTRY 2 True, REDUCE sym_await 2 0 0, SHIFT 2008]),
    (10143, [ENTRY 2 True, REDUCE sym_await 2 0 0, SHIFT 2099]),
    (10146, [ENTRY 2 True, REDUCE sym_await 2 0 0, SHIFT 2009]),
    (10149, [ENTRY 1 True, SHIFT 2036]), (10151, [ENTRY 1 False, SHIFT 3241]),
    (10153, [ENTRY 1 True, SHIFT 8545]), (10155, [ENTRY 1 False, SHIFT 4024]),
    (10157, [ENTRY 2 True, REDUCE sym_binary_operator 3 0 22, SHIFT 2103]),
    (10160, [ENTRY 2 True, REDUCE sym_unary_operator 2 0 9, SHIFT 2103]),
    (10163, [ENTRY 2 True, REDUCE sym_await 2 0 0, SHIFT 2103]),
    (10166, [ENTRY 1 False, SHIFT 4088]),
    (10168, [ENTRY 2 True, REDUCE aux_sym_concatenated_string_repeat1 2 0 0, SHIFT_REPEAT 9598]),
    (10171, [ENTRY 1 True, SHIFT 2053]), (10173, [ENTRY 1 False, SHIFT 3529]),
    (10175, [ENTRY 1 True, SHIFT 8243]), (10177, [ENTRY 1 False, SHIFT 4038]),
    (10179, [ENTRY 1 True, SHIFT 2085]), (10181, [ENTRY 1 False, SHIFT 3532]),
    (10183, [ENTRY 1 True, SHIFT 8511]), (10185, [ENTRY 1 False, SHIFT 4042]),
    (10187, [ENTRY 1 True, SHIFT 3708]), (10189, [ENTRY 1 True, SHIFT 7608]),
    (10191, [ENTRY 1 True, SHIFT 3676]), (10193, [ENTRY 1 True, SHIFT 7196]),
    (10195, [ENTRY 1 True, SHIFT 3744]), (10197, [ENTRY 1 True, SHIFT 7041]),
    (10199, [ENTRY 1 True, SHIFT 3685]), (10201, [ENTRY 1 True, SHIFT 7240]),
    (10203, [ENTRY 1 True, SHIFT 3704]), (10205, [ENTRY 1 True, SHIFT 7431]),
    (10207, [ENTRY 1 False, SHIFT 4132]), (10209, [ENTRY 1 True, SHIFT 3729]),
    (10211, [ENTRY 1 True, SHIFT 7637]), (10213, [ENTRY 1 True, SHIFT 3693]),
    (10215, [ENTRY 1 True, SHIFT 7797]), (10217, [ENTRY 1 True, SHIFT 3674]),
    (10219, [ENTRY 1 True, SHIFT 7486]), (10221, [ENTRY 1 True, SHIFT 3732]),
    (10223, [ENTRY 1 True, SHIFT 6787]),
    (10225, [ENTRY 1 True, REDUCE aux_sym_type_parameter_repeat1 2 0 5]),
    (10227, [ENTRY 1 False, SHIFT 3033]), (10229, [ENTRY 1 False, SHIFT 4013]),
    (10231, [ENTRY 1 True, SHIFT 3741]), (10233, [ENTRY 1 True, SHIFT 7162]),
    (10235, [ENTRY 1 False, REDUCE aux_sym_decorated_definition_repeat1 2 0 0]),
    (10237, [ENTRY 1 True, REDUCE aux_sym_decorated_definition_repeat1 2 0 0]),
    (10239, [ENTRY 2 True, REDUCE aux_sym_decorated_definition_repeat1 2 0 0, SHIFT_REPEAT 4178]),
    (10242, [ENTRY 1 False, SHIFT 3971]),
    (10244, [ENTRY 1 True, REDUCE aux_sym_subscript_repeat1 2 0 84]),
    (10246, [ENTRY 1 True, REDUCE sym_keyword_argument 3 0 82]),
    (10248, [ENTRY 1 True, REDUCE sym_keyword_argument 3 0 83]),
    (10250, [ENTRY 1 True, REDUCE sym__type_parameter_default 1 0 1]),
    (10252, [ENTRY 1 False, SHIFT 4251]), (10254, [ENTRY 1 False, REDUCE sym_decorator 3 0 0]),
    (10256, [ENTRY 1 True, REDUCE sym_decorator 3 0 0]),
    (10258, [ENTRY 2 True, REDUCE sym_type_parameter 2 0 0, REDUCE sym_list 2 0 0]),
    (10261, [ENTRY 1 True, REDUCE sym_type_parameter 2 0 0]), (10263, [ENTRY 1 False, SHIFT 9652]),
    (10265, [ENTRY 1 True, SHIFT 7869]), (10267, [ENTRY 1 False, SHIFT 12346]),
    (10269, [ENTRY 1 True, SHIFT 1258]), (10271, [ENTRY 1 False, SHIFT 4150]),
    (10273, [ENTRY 1 True, SHIFT 7849]), (10275, [ENTRY 1 True, SHIFT 7916]),
    (10277, [ENTRY 1 False, SHIFT 10849]), (10279, [ENTRY 1 True, SHIFT 12346]),
    (10281, [ENTRY 1 True, SHIFT 12354]), (10283, [ENTRY 1 False, SHIFT 9866]),
    (10285, [ENTRY 1 True, SHIFT 9866]), (10287, [ENTRY 1 True, SHIFT 1644]),
    (10289, [ENTRY 1 True, REDUCE aux_sym_comparison_operator_repeat1 2 0 27]),
    (10291, [ENTRY 2 True, REDUCE aux_sym_comparison_operator_repeat1 2 0 27, SHIFT_REPEAT 6918]),
    (10294, [ENTRY 1 False, REDUCE aux_sym_comparison_operator_repeat1 2 0 27]),
    (10296, [ENTRY 2 True, REDUCE aux_sym_comparison_operator_repeat1 2 0 27, SHIFT_REPEAT 12615]),
    (10299, [ENTRY 2 True, REDUCE aux_sym_comparison_operator_repeat1 2 0 27, SHIFT_REPEAT 6805]),
    (10302, [ENTRY 2 False, REDUCE aux_sym_comparison_operator_repeat1 2 0 27, SHIFT_REPEAT 6918]),
    (10305, [ENTRY 1 True, REDUCE sym_comparison_operator 2 0 11]),
    (10307, [ENTRY 1 False, REDUCE sym_comparison_operator 2 0 11]),
    (10309, [ENTRY 1 False, SHIFT 12218]), (10311, [ENTRY 1 True, SHIFT 6728]),
    (10313, [ENTRY 1 False, SHIFT 6761]), (10315, [ENTRY 1 True, SHIFT 4147]),
    (10317, [ENTRY 1 True, SHIFT 6862]), (10319, [ENTRY 1 False, SHIFT 11576]),
    (10321, [ENTRY 1 False, SHIFT 10974]), (10323, [ENTRY 1 False, SHIFT 12307]),
    (10325, [ENTRY 1 True, SHIFT 12298]),
    (10327, [ENTRY 2 True, REDUCE aux_sym_comparison_operator_repeat1 2 0 27, SHIFT_REPEAT 6899]),
    (10330, [ENTRY 2 True, REDUCE aux_sym_comparison_operator_repeat1 2 0 27, SHIFT_REPEAT 6802]),
    (10333, [ENTRY 2 False, REDUCE aux_sym_comparison_operator_repeat1 2 0 27, SHIFT_REPEAT 6899]),
    (10336, [ENTRY 1 True, SHIFT 3923]),
    (10338, [ENTRY 2 True, REDUCE aux_sym_comparison_operator_repeat1 2 0 27, SHIFT_REPEAT 6881]),
    (10341, [ENTRY 2 True, REDUCE aux_sym_comparison_operator_repeat1 2 0 27, SHIFT_REPEAT 6806]),
    (10344, [ENTRY 2 False, REDUCE aux_sym_comparison_operator_repeat1 2 0 27, SHIFT_REPEAT 6881]),
    (10347, [ENTRY 1 True, SHIFT 4220]), (10349, [ENTRY 1 True, SHIFT 4230]),
    (10351, [ENTRY 1 True, SHIFT 4206]),
    (10353, [ENTRY 2 True, REDUCE aux_sym_comparison_operator_repeat1 2 0 27, SHIFT_REPEAT 6907]),
    (10356, [ENTRY 2 True, REDUCE aux_sym_comparison_operator_repeat1 2 0 27, SHIFT_REPEAT 6804]),
    (10359, [ENTRY 2 False, REDUCE aux_sym_comparison_operator_repeat1 2 0 27, SHIFT_REPEAT 6907]),
    (10362, [ENTRY 1 True, SHIFT 4078]), (10364, [ENTRY 1 True, SHIFT 3944]),
    (10366, [ENTRY 1 True, SHIFT 4213])]"

definition parse_actions_34 :: "(nat \<times> TSParseActionEntry list) list" where "parse_actions_34 = [
    (10368, [ENTRY 1 True, SHIFT 4091]), (10370, [ENTRY 1 True, SHIFT 4107]),
    (10372, [ENTRY 1 True, SHIFT 4084]), (10374, [ENTRY 1 True, SHIFT 4242]),
    (10376, [ENTRY 1 True, SHIFT 4146]), (10378, [ENTRY 1 True, SHIFT 4258]),
    (10380, [ENTRY 1 True, SHIFT 3991]), (10382, [ENTRY 1 False, SHIFT 9734]),
    (10384, [ENTRY 1 True, SHIFT 7862]), (10386, [ENTRY 1 True, SHIFT 11633]),
    (10388, [ENTRY 1 False, SHIFT 12387]), (10390, [ENTRY 1 True, SHIFT 7868]),
    (10392, [ENTRY 1 True, SHIFT 7899]), (10394, [ENTRY 1 False, SHIFT 11077]),
    (10396, [ENTRY 1 True, SHIFT 12387]), (10398, [ENTRY 1 True, SHIFT 12404]),
    (10400, [ENTRY 1 False, SHIFT 10638]), (10402, [ENTRY 1 True, SHIFT 10638]),
    (10404, [ENTRY 1 True, SHIFT 11669]), (10406, [ENTRY 1 False, SHIFT 9711]),
    (10408, [ENTRY 1 True, SHIFT 7851]), (10410, [ENTRY 1 False, SHIFT 12461]),
    (10412, [ENTRY 1 True, SHIFT 7854]), (10414, [ENTRY 1 True, SHIFT 11145]),
    (10416, [ENTRY 1 True, SHIFT 7917]), (10418, [ENTRY 1 False, SHIFT 10989]),
    (10420, [ENTRY 1 True, SHIFT 12461]), (10422, [ENTRY 1 True, SHIFT 12389]),
    (10424, [ENTRY 1 False, SHIFT 10436]), (10426, [ENTRY 1 True, SHIFT 10436]),
    (10428, [ENTRY 1 True, SHIFT 10967]), (10430, [ENTRY 1 True, SHIFT 11194]),
    (10432, [ENTRY 1 True, SHIFT 11210]), (10434, [ENTRY 1 True, SHIFT 11098]),
    (10436, [ENTRY 1 True, SHIFT 11196]), (10438, [ENTRY 1 True, SHIFT 11677]),
    (10440, [ENTRY 1 True, SHIFT 11509]), (10442, [ENTRY 1 True, SHIFT 11511]),
    (10444, [ENTRY 1 True, SHIFT 11211]), (10446, [ENTRY 1 True, SHIFT 11388]),
    (10448, [ENTRY 1 True, SHIFT 11454]), (10450, [ENTRY 1 False, SHIFT 11189]),
    (10452, [ENTRY 1 True, SHIFT 6724]), (10454, [ENTRY 1 True, SHIFT 12557]),
    (10456, [ENTRY 1 False, SHIFT 6760]), (10458, [ENTRY 1 True, SHIFT 6817]),
    (10460, [ENTRY 1 False, SHIFT 12106]), (10462, [ENTRY 1 True, SHIFT 12361]),
    (10464, [ENTRY 1 True, SHIFT 11623]), (10466, [ENTRY 1 True, SHIFT 11288]),
    (10468, [ENTRY 1 True, SHIFT 11037]), (10470, [ENTRY 1 True, SHIFT 11238]),
    (10472, [ENTRY 1 True, SHIFT 11799]), (10474, [ENTRY 1 True, SHIFT 11604]),
    (10476, [ENTRY 1 True, SHIFT 11635]), (10478, [ENTRY 1 True, SHIFT 11143]),
    (10480, [ENTRY 1 True, SHIFT 11631]), (10482, [ENTRY 1 True, SHIFT 11217]),
    (10484, [ENTRY 1 True, SHIFT 11606]), (10486, [ENTRY 1 True, SHIFT 11508]),
    (10488, [ENTRY 1 True, SHIFT 11041]), (10490, [ENTRY 1 True, SHIFT 9636]),
    (10492, [ENTRY 1 True, SHIFT 10971]), (10494, [ENTRY 1 True, SHIFT 11518]),
    (10496, [ENTRY 1 True, SHIFT 4135]), (10498, [ENTRY 1 True, SHIFT 11452]),
    (10500, [ENTRY 1 True, SHIFT 11514]),
    (10502, [ENTRY 1 False, REDUCE sym__ref_convention 4 0 0]),
    (10504, [ENTRY 1 True, REDUCE sym__ref_convention 4 0 0]),
    (10506, [ENTRY 1 True, SHIFT 11389]),
    (10508, [ENTRY 1 False, REDUCE sym__ref_convention 5 0 0]),
    (10510, [ENTRY 1 True, REDUCE sym__ref_convention 5 0 0]),
    (10512, [ENTRY 1 True, SHIFT 11038]),
    (10514, [ENTRY 1 False, REDUCE sym__ref_convention 6 0 0]),
    (10516, [ENTRY 1 True, REDUCE sym__ref_convention 6 0 0]),
    (10518, [ENTRY 1 True, SHIFT 11410]), (10520, [ENTRY 1 True, SHIFT 11460]),
    (10522, [ENTRY 1 True, SHIFT 11178]), (10524, [ENTRY 1 False, SHIFT 9692]),
    (10526, [ENTRY 1 True, SHIFT 7873]), (10528, [ENTRY 1 False, SHIFT 12329]),
    (10530, [ENTRY 1 True, SHIFT 7877]), (10532, [ENTRY 1 True, SHIFT 7911]),
    (10534, [ENTRY 1 False, SHIFT 11058]), (10536, [ENTRY 1 True, SHIFT 12329]),
    (10538, [ENTRY 1 True, SHIFT 12332]), (10540, [ENTRY 1 False, SHIFT 10201]),
    (10542, [ENTRY 1 True, SHIFT 10201]), (10544, [ENTRY 1 True, REDUCE sym__parameters 2 0 0]),
    (10546, [ENTRY 1 True, REDUCE sym__parameters 3 0 0]), (10548, [ENTRY 1 False, SHIFT 9677]),
    (10550, [ENTRY 1 True, SHIFT 11638]), (10552, [ENTRY 1 False, SHIFT 12097]),
    (10554, [ENTRY 1 True, SHIFT 11401]), (10556, [ENTRY 1 True, SHIFT 11618]),
    (10558, [ENTRY 1 True, SHIFT 11213]), (10560, [ENTRY 1 True, SHIFT 11028]),
    (10562, [ENTRY 1 True, SHIFT 11512]), (10564, [ENTRY 1 True, SHIFT 11696]),
    (10566, [ENTRY 1 True, SHIFT 11067]), (10568, [ENTRY 1 True, SHIFT 11215]),
    (10570, [ENTRY 1 True, SHIFT 11390]), (10572, [ENTRY 1 True, SHIFT 11523]),
    (10574, [ENTRY 1 True, SHIFT 11686]), (10576, [ENTRY 1 True, SHIFT 11513]),
    (10578, [ENTRY 1 True, SHIFT 11096]), (10580, [ENTRY 1 True, SHIFT 11457]),
    (10582, [ENTRY 1 True, SHIFT 11146]), (10584, [ENTRY 1 True, SHIFT 11197]),
    (10586, [ENTRY 1 True, SHIFT 10983]), (10588, [ENTRY 1 True, SHIFT 11458]),
    (10590, [ENTRY 1 True, SHIFT 11610]),
    (10592, [ENTRY 2 True, REDUCE aux_sym_comparison_operator_repeat1 2 0 27, SHIFT_REPEAT 6813]),
    (10595, [ENTRY 2 True, REDUCE aux_sym_comparison_operator_repeat1 2 0 27, SHIFT_REPEAT 6807]),
    (10598, [ENTRY 2 False, REDUCE aux_sym_comparison_operator_repeat1 2 0 27, SHIFT_REPEAT 6813]),
    (10601, [ENTRY 2 True, REDUCE aux_sym_comparison_operator_repeat1 2 0 27, SHIFT_REPEAT 6848]),
    (10604, [ENTRY 2 True, REDUCE aux_sym_comparison_operator_repeat1 2 0 27, SHIFT_REPEAT 6784]),
    (10607, [ENTRY 2 False, REDUCE aux_sym_comparison_operator_repeat1 2 0 27, SHIFT_REPEAT 6848]),
    (10610, [ENTRY 1 False, SHIFT 10069]), (10612, [ENTRY 1 False, SHIFT 11019]),
    (10614, [ENTRY 1 False, SHIFT 9845]), (10616, [ENTRY 1 False, SHIFT 11184]),
    (10618, [ENTRY 1 False, SHIFT 10052]), (10620, [ENTRY 1 False, SHIFT 11079]),
    (10622, [ENTRY 1 False, REDUCE sym__is_not 2 0 0]),
    (10624, [ENTRY 1 True, REDUCE sym__is_not 2 0 0]), (10626, [ENTRY 1 False, SHIFT 11185]),
    (10628, [ENTRY 1 False, REDUCE sym__not_in 2 0 0]),
    (10630, [ENTRY 1 True, REDUCE sym__not_in 2 0 0]), (10632, [ENTRY 1 True, SHIFT 4273]),
    (10634, [ENTRY 1 False, SHIFT 10534]), (10636, [ENTRY 1 False, SHIFT 10521]),
    (10638, [ENTRY 1 False, SHIFT 11020]), (10640, [ENTRY 1 False, SHIFT 11073]),
    (10642, [ENTRY 2 True, REDUCE aux_sym_comparison_operator_repeat1 2 0 27, SHIFT_REPEAT 6875]),
    (10645, [ENTRY 2 True, REDUCE aux_sym_comparison_operator_repeat1 2 0 27, SHIFT_REPEAT 6785]),
    (10648, [ENTRY 2 False, REDUCE aux_sym_comparison_operator_repeat1 2 0 27, SHIFT_REPEAT 6875]),
    (10651, [ENTRY 2 True, REDUCE aux_sym_comparison_operator_repeat1 2 0 27, SHIFT_REPEAT 6858]),
    (10654, [ENTRY 2 True, REDUCE aux_sym_comparison_operator_repeat1 2 0 27, SHIFT_REPEAT 6779]),
    (10657, [ENTRY 2 False, REDUCE aux_sym_comparison_operator_repeat1 2 0 27, SHIFT_REPEAT 6858]),
    (10660, [ENTRY 2 True, REDUCE aux_sym_comparison_operator_repeat1 2 0 27, SHIFT_REPEAT 6884]),
    (10663, [ENTRY 2 True, REDUCE aux_sym_comparison_operator_repeat1 2 0 27, SHIFT_REPEAT 6767]),
    (10666, [ENTRY 2 False, REDUCE aux_sym_comparison_operator_repeat1 2 0 27, SHIFT_REPEAT 6884]),
    (10669, [ENTRY 2 True, REDUCE aux_sym_comparison_operator_repeat1 2 0 27, SHIFT_REPEAT 6822]),
    (10672, [ENTRY 2 True, REDUCE aux_sym_comparison_operator_repeat1 2 0 27, SHIFT_REPEAT 6792]),
    (10675, [ENTRY 2 False, REDUCE aux_sym_comparison_operator_repeat1 2 0 27, SHIFT_REPEAT 6822]),
    (10678, [ENTRY 2 True, REDUCE aux_sym_comparison_operator_repeat1 2 0 27, SHIFT_REPEAT 6841]),
    (10681, [ENTRY 2 True, REDUCE aux_sym_comparison_operator_repeat1 2 0 27, SHIFT_REPEAT 6772]),
    (10684, [ENTRY 2 False, REDUCE aux_sym_comparison_operator_repeat1 2 0 27, SHIFT_REPEAT 6841]),
    (10687, [ENTRY 2 True, REDUCE aux_sym_comparison_operator_repeat1 2 0 27, SHIFT_REPEAT 6929])]"

definition parse_actions_35 :: "(nat \<times> TSParseActionEntry list) list" where "parse_actions_35 = [
    (10690, [ENTRY 2 True, REDUCE aux_sym_comparison_operator_repeat1 2 0 27, SHIFT_REPEAT 6801]),
    (10693, [ENTRY 2 False, REDUCE aux_sym_comparison_operator_repeat1 2 0 27, SHIFT_REPEAT 6929]),
    (10696, [ENTRY 1 True, SHIFT 2142]), (10698, [ENTRY 1 True, SHIFT 3119]),
    (10700, [ENTRY 1 True, SHIFT 2817]), (10702, [ENTRY 1 True, SHIFT 4033]),
    (10704, [ENTRY 1 True, SHIFT 3979]), (10706, [ENTRY 1 True, SHIFT 4019]),
    (10708, [ENTRY 1 True, REDUCE sym_not_operator 2 0 6]), (10710, [ENTRY 1 True, SHIFT 4050]),
    (10712, [ENTRY 1 True, SHIFT 3943]),
    (10714, [ENTRY 1 True, REDUCE sym_boolean_operator 3 0 22]),
    (10716, [ENTRY 1 True, SHIFT 3910]), (10718, [ENTRY 1 True, SHIFT 3914]),
    (10720, [ENTRY 1 True, SHIFT 3922]),
    (10722, [ENTRY 2 True, REDUCE sym_primary_expression 1 0 0, SHIFT 2037]),
    (10725, [ENTRY 1 True, SHIFT 3985]), (10727, [ENTRY 1 True, SHIFT 3900]),
    (10729, [ENTRY 1 True, SHIFT 3990]), (10731, [ENTRY 1 True, SHIFT 3978]),
    (10733, [ENTRY 1 True, SHIFT 4055]), (10735, [ENTRY 1 True, SHIFT 4048]),
    (10737, [ENTRY 1 True, SHIFT 4049]),
    (10739, [ENTRY 1 True, REDUCE aux_sym__patterns_repeat1 2 0 0]),
    (10741, [ENTRY 2 True, REDUCE aux_sym__patterns_repeat1 2 0 0, SHIFT_REPEAT 6749]),
    (10744, [ENTRY 1 True, SHIFT 3665]), (10746, [ENTRY 1 True, SHIFT 9479]),
    (10748, [ENTRY 1 True, SHIFT 2831]),
    (10750, [ENTRY 1 True, REDUCE sym_dictionary_splat_pattern 2 0 0]),
    (10752, [ENTRY 1 True, REDUCE sym_lambda 4 0 53]), (10754, [ENTRY 1 True, SHIFT 4222]),
    (10756, [ENTRY 1 True, SHIFT 4170]), (10758, [ENTRY 1 True, SHIFT 4223]),
    (10760, [ENTRY 1 True, SHIFT 4224]),
    (10762, [ENTRY 1 True, REDUCE aux_sym_called_type_repeat1 2 0 0]),
    (10764, [ENTRY 1 True, SHIFT 3743]), (10766, [ENTRY 1 True, REDUCE sym_lambda 3 0 17]),
    (10768, [ENTRY 1 True, REDUCE sym_named_expression 3 0 19]),
    (10770, [ENTRY 2 True, REDUCE sym_named_expression 3 0 19, SHIFT 4222]),
    (10773, [ENTRY 1 True, REDUCE sym_as_pattern 3 0 23]),
    (10775, [ENTRY 1 True, REDUCE sym_conditional_expression 5 0 0]),
    (10777, [ENTRY 1 True, REDUCE sym_type 1 0 0]),
    (10779, [ENTRY 1 True, REDUCE sym_tuple_pattern 3 0 0]),
    (10781, [ENTRY 1 True, REDUCE sym_list_pattern 3 0 0]),
    (10783, [ENTRY 2 True, REDUCE sym__raises_type 1 0 0, REDUCE sym_type 1 0 0]),
    (10786, [ENTRY 1 True, REDUCE sym__raises_type 1 0 0]), (10788, [ENTRY 1 True, SHIFT 3716]),
    (10790, [ENTRY 1 True, REDUCE sym_function_type 8 0 283]), (10792, [ENTRY 1 True, SHIFT 2414]),
    (10794, [ENTRY 1 True, SHIFT 9614]), (10796, [ENTRY 1 True, SHIFT 1869]),
    (10798, [ENTRY 1 True, SHIFT 8240]), (10800, [ENTRY 1 True, SHIFT 8351]),
    (10802, [ENTRY 1 True, SHIFT 12680]),
    (10804, [ENTRY 1 True, REDUCE sym_function_type 8 0 213]), (10806, [ENTRY 1 True, SHIFT 2415]),
    (10808, [ENTRY 1 True, SHIFT 8065]), (10810, [ENTRY 1 True, REDUCE sym_function_type 8 0 287]),
    (10812, [ENTRY 1 True, SHIFT 2423]), (10814, [ENTRY 1 True, REDUCE sym_function_type 9 0 361]),
    (10816, [ENTRY 1 True, SHIFT 2704]), (10818, [ENTRY 1 True, SHIFT 4215]),
    (10820, [ENTRY 1 True, SHIFT 4280]), (10822, [ENTRY 1 True, SHIFT 4216]),
    (10824, [ENTRY 1 True, SHIFT 4217]),
    (10826, [ENTRY 2 True, REDUCE sym_named_expression 3 0 19, SHIFT 4215]),
    (10829, [ENTRY 1 True, SHIFT 4193]), (10831, [ENTRY 1 True, SHIFT 4276]),
    (10833, [ENTRY 1 True, SHIFT 4256]), (10835, [ENTRY 1 True, SHIFT 4261]),
    (10837, [ENTRY 1 True, SHIFT 4208]), (10839, [ENTRY 1 True, SHIFT 4169]),
    (10841, [ENTRY 1 True, SHIFT 4209]), (10843, [ENTRY 1 True, SHIFT 4210]),
    (10845, [ENTRY 1 True, SHIFT 3707]),
    (10847, [ENTRY 2 True, REDUCE aux_sym__patterns_repeat1 2 0 0, SHIFT_REPEAT 6755]),
    (10850, [ENTRY 1 True, REDUCE sym__right_hand_side 1 0 0]),
    (10852, [ENTRY 2 True, REDUCE sym_named_expression 3 0 19, SHIFT 4208]),
    (10855, [ENTRY 1 True, SHIFT 3726]), (10857, [ENTRY 1 True, SHIFT 3727]),
    (10859, [ENTRY 2 True, REDUCE sym_named_expression 3 0 19, SHIFT 4193]),
    (10862, [ENTRY 1 True, REDUCE sym_function_type 3 0 0]), (10864, [ENTRY 1 True, SHIFT 2708]),
    (10866, [ENTRY 1 True, SHIFT 8105]), (10868, [ENTRY 1 True, SHIFT 3719]),
    (10870, [ENTRY 1 True, REDUCE sym_function_type 4 0 75]), (10872, [ENTRY 1 True, SHIFT 2713]),
    (10874, [ENTRY 1 True, REDUCE sym_function_type 4 0 76]), (10876, [ENTRY 1 True, SHIFT 2800]),
    (10878, [ENTRY 1 True, SHIFT 8112]), (10880, [ENTRY 1 True, REDUCE sym_function_type 4 0 77]),
    (10882, [ENTRY 1 True, SHIFT 2801]), (10884, [ENTRY 1 True, SHIFT 8156]),
    (10886, [ENTRY 1 True, REDUCE sym_function_type 5 0 114]), (10888, [ENTRY 1 True, SHIFT 2288]),
    (10890, [ENTRY 1 True, SHIFT 8160]), (10892, [ENTRY 1 True, REDUCE sym_function_type 5 0 115]),
    (10894, [ENTRY 1 True, SHIFT 2305]), (10896, [ENTRY 1 True, REDUCE sym_function_type 5 0 76]),
    (10898, [ENTRY 1 True, SHIFT 2300]), (10900, [ENTRY 1 True, SHIFT 8166]),
    (10902, [ENTRY 1 True, REDUCE sym_function_type 5 0 117]), (10904, [ENTRY 1 True, SHIFT 2308]),
    (10906, [ENTRY 1 True, SHIFT 8169]), (10908, [ENTRY 1 True, SHIFT 2563]),
    (10910, [ENTRY 1 True, SHIFT 8116]), (10912, [ENTRY 1 True, SHIFT 2565]),
    (10914, [ENTRY 1 True, SHIFT 2566]), (10916, [ENTRY 1 True, SHIFT 8120]),
    (10918, [ENTRY 1 True, SHIFT 2567]), (10920, [ENTRY 1 True, SHIFT 8123]),
    (10922, [ENTRY 1 True, SHIFT 2569]), (10924, [ENTRY 1 True, SHIFT 8125]),
    (10926, [ENTRY 1 True, SHIFT 2571]), (10928, [ENTRY 1 True, SHIFT 2570]),
    (10930, [ENTRY 1 True, SHIFT 8128]), (10932, [ENTRY 1 True, SHIFT 2572]),
    (10934, [ENTRY 1 True, SHIFT 8129]), (10936, [ENTRY 1 True, REDUCE sym_function_type 5 0 119]),
    (10938, [ENTRY 1 True, SHIFT 2574]), (10940, [ENTRY 1 True, REDUCE sym_function_type 5 0 120]),
    (10942, [ENTRY 1 True, SHIFT 2575]), (10944, [ENTRY 1 True, SHIFT 8132]),
    (10946, [ENTRY 1 True, REDUCE sym_function_type 6 0 154]), (10948, [ENTRY 1 True, SHIFT 2577]),
    (10950, [ENTRY 1 True, REDUCE sym_function_type 6 0 114]), (10952, [ENTRY 1 True, SHIFT 2576]),
    (10954, [ENTRY 1 True, SHIFT 8135]), (10956, [ENTRY 1 True, REDUCE sym_function_type 6 0 155]),
    (10958, [ENTRY 1 True, SHIFT 2578]), (10960, [ENTRY 1 True, SHIFT 8136]),
    (10962, [ENTRY 1 True, REDUCE sym_function_type 6 0 157]), (10964, [ENTRY 1 True, SHIFT 2581]),
    (10966, [ENTRY 1 True, REDUCE sym_function_type 6 0 158]), (10968, [ENTRY 1 True, SHIFT 2583]),
    (10970, [ENTRY 1 True, REDUCE sym_function_type 6 0 117]), (10972, [ENTRY 1 True, SHIFT 2584]),
    (10974, [ENTRY 1 True, SHIFT 8138]), (10976, [ENTRY 1 True, REDUCE sym_function_type 6 0 160]),
    (10978, [ENTRY 1 True, SHIFT 2586]), (10980, [ENTRY 1 True, SHIFT 8139]),
    (10982, [ENTRY 1 True, REDUCE sym_function_type 6 0 161]), (10984, [ENTRY 1 True, SHIFT 2588]),
    (10986, [ENTRY 1 True, REDUCE sym_function_type 8 0 282]), (10988, [ENTRY 1 True, SHIFT 2411]),
    (10990, [ENTRY 1 True, REDUCE sym_function_type 6 0 162]), (10992, [ENTRY 1 True, SHIFT 2589]),
    (10994, [ENTRY 1 True, SHIFT 8143]), (10996, [ENTRY 1 True, REDUCE sym_function_type 7 0 204]),
    (10998, [ENTRY 1 True, SHIFT 2592])]"

definition parse_actions_36 :: "(nat \<times> TSParseActionEntry list) list" where "parse_actions_36 = [
    (11000, [ENTRY 1 True, REDUCE sym_function_type 7 0 205]), (11002, [ENTRY 1 True, SHIFT 2594]),
    (11004, [ENTRY 1 True, REDUCE sym_function_type 7 0 155]), (11006, [ENTRY 1 True, SHIFT 2595]),
    (11008, [ENTRY 1 True, SHIFT 8145]), (11010, [ENTRY 1 True, REDUCE sym_function_type 7 0 209]),
    (11012, [ENTRY 1 True, SHIFT 2599]), (11014, [ENTRY 1 True, REDUCE sym_function_type 7 0 212]),
    (11016, [ENTRY 1 True, SHIFT 2601]), (11018, [ENTRY 1 True, REDUCE sym_function_type 7 0 160]),
    (11020, [ENTRY 1 True, SHIFT 2600]), (11022, [ENTRY 1 True, SHIFT 8146]),
    (11024, [ENTRY 1 True, REDUCE sym_function_type 7 0 213]), (11026, [ENTRY 1 True, SHIFT 2602]),
    (11028, [ENTRY 1 True, SHIFT 8147]), (11030, [ENTRY 1 True, REDUCE sym_function_type 7 0 215]),
    (11032, [ENTRY 1 True, SHIFT 2605]), (11034, [ENTRY 1 True, REDUCE sym_function_type 7 0 216]),
    (11036, [ENTRY 1 True, SHIFT 2607]), (11038, [ENTRY 1 True, REDUCE sym_function_type 7 0 162]),
    (11040, [ENTRY 1 True, SHIFT 2608]), (11042, [ENTRY 1 True, SHIFT 8149]),
    (11044, [ENTRY 1 True, REDUCE sym_function_type 8 0 273]), (11046, [ENTRY 1 True, SHIFT 2612]),
    (11048, [ENTRY 1 True, SHIFT 2616]), (11050, [ENTRY 1 True, SHIFT 2618]),
    (11052, [ENTRY 1 True, SHIFT 2619]), (11054, [ENTRY 1 True, SHIFT 8150]),
    (11056, [ENTRY 1 True, SHIFT 2623]), (11058, [ENTRY 1 True, SHIFT 2628]),
    (11060, [ENTRY 1 True, SHIFT 2331]), (11062, [ENTRY 1 True, SHIFT 2332]),
    (11064, [ENTRY 1 True, SHIFT 8174]), (11066, [ENTRY 1 True, SHIFT 2335]),
    (11068, [ENTRY 1 True, SHIFT 2334]), (11070, [ENTRY 1 True, SHIFT 8177]),
    (11072, [ENTRY 1 True, SHIFT 2336]), (11074, [ENTRY 1 True, SHIFT 8178]),
    (11076, [ENTRY 1 True, SHIFT 2344]), (11078, [ENTRY 1 True, SHIFT 3661]),
    (11080, [ENTRY 1 True, SHIFT 2348]),
    (11082, [ENTRY 1 True, REDUCE sym__intersection_operand 1 0 0]),
    (11084, [ENTRY 1 True, SHIFT 2349]), (11086, [ENTRY 1 True, SHIFT 8181]),
    (11088, [ENTRY 1 True, SHIFT 2352]), (11090, [ENTRY 1 True, SHIFT 8182]),
    (11092, [ENTRY 1 True, SHIFT 2356]), (11094, [ENTRY 1 True, REDUCE sym_function_type 6 0 120]),
    (11096, [ENTRY 1 True, SHIFT 2353]), (11098, [ENTRY 1 True, SHIFT 8191]),
    (11100, [ENTRY 1 True, SHIFT 2357]), (11102, [ENTRY 1 True, SHIFT 8192]),
    (11104, [ENTRY 1 True, SHIFT 2364]), (11106, [ENTRY 1 True, SHIFT 2368]),
    (11108, [ENTRY 1 True, SHIFT 2370]), (11110, [ENTRY 1 True, SHIFT 8194]),
    (11112, [ENTRY 1 True, SHIFT 2378]), (11114, [ENTRY 1 True, SHIFT 2380]),
    (11116, [ENTRY 1 True, SHIFT 2379]), (11118, [ENTRY 1 True, SHIFT 8133]),
    (11120, [ENTRY 1 True, SHIFT 2382]), (11122, [ENTRY 1 True, SHIFT 8062]),
    (11124, [ENTRY 1 True, SHIFT 2387]), (11126, [ENTRY 1 True, SHIFT 2391]),
    (11128, [ENTRY 1 True, SHIFT 2393]), (11130, [ENTRY 1 True, SHIFT 8064]),
    (11132, [ENTRY 1 True, SHIFT 2404]), (11134, [ENTRY 1 True, SHIFT 2587]),
    (11136, [ENTRY 1 True, SHIFT 8142]), (11138, [ENTRY 1 True, SHIFT 2161]),
    (11140, [ENTRY 1 True, SHIFT 9550]), (11142, [ENTRY 1 True, SHIFT 1876]),
    (11144, [ENTRY 1 True, SHIFT 8498]), (11146, [ENTRY 1 True, SHIFT 8543]),
    (11148, [ENTRY 1 True, SHIFT 12682]), (11150, [ENTRY 1 True, SHIFT 1343]),
    (11152, [ENTRY 1 True, SHIFT 2408]), (11154, [ENTRY 1 True, SHIFT 9577]),
    (11156, [ENTRY 1 True, SHIFT 1990]), (11158, [ENTRY 1 True, SHIFT 8585]),
    (11160, [ENTRY 1 True, SHIFT 8619]), (11162, [ENTRY 1 True, SHIFT 12695]),
    (11164, [ENTRY 1 True, SHIFT 12630]), (11166, [ENTRY 1 True, SHIFT 4113]),
    (11168, [ENTRY 1 True, SHIFT 1346]), (11170, [ENTRY 1 True, SHIFT 2412]),
    (11172, [ENTRY 1 True, SHIFT 8621]), (11174, [ENTRY 1 True, SHIFT 1544]),
    (11176, [ENTRY 1 True, SHIFT 2128]), (11178, [ENTRY 1 True, SHIFT 8833]),
    (11180, [ENTRY 1 True, REDUCE sym_generic_type 2 0 1]), (11182, [ENTRY 1 True, SHIFT 2253]),
    (11184, [ENTRY 1 True, SHIFT 9572]), (11186, [ENTRY 1 True, SHIFT 1875]),
    (11188, [ENTRY 1 True, SHIFT 8502]), (11190, [ENTRY 1 True, SHIFT 8214]),
    (11192, [ENTRY 1 True, SHIFT 12570]), (11194, [ENTRY 1 True, REDUCE sym_generic_type 2 0 0]),
    (11196, [ENTRY 1 True, SHIFT 2255]), (11198, [ENTRY 1 True, SHIFT 8503]),
    (11200, [ENTRY 1 True, SHIFT 2254]), (11202, [ENTRY 1 True, SHIFT 8218]),
    (11204, [ENTRY 1 True, SHIFT 2257]), (11206, [ENTRY 1 True, SHIFT 8219]),
    (11208, [ENTRY 1 True, REDUCE sym_type_parameter 8 0 218]),
    (11210, [ENTRY 1 True, REDUCE sym_type_parameter 8 0 288]),
    (11212, [ENTRY 1 True, REDUCE sym_type_parameter 8 0 219]),
    (11214, [ENTRY 1 True, SHIFT 2259]), (11216, [ENTRY 1 True, SHIFT 2261]),
    (11218, [ENTRY 1 True, SHIFT 8223]),
    (11220, [ENTRY 1 True, REDUCE sym_type_parameter 9 0 288]),
    (11222, [ENTRY 1 True, SHIFT 2209]), (11224, [ENTRY 1 True, SHIFT 1880]),
    (11226, [ENTRY 1 True, SHIFT 8529]), (11228, [ENTRY 1 True, SHIFT 2244]),
    (11230, [ENTRY 1 True, SHIFT 8317]), (11232, [ENTRY 1 True, SHIFT 2263]),
    (11234, [ENTRY 1 True, SHIFT 2262]), (11236, [ENTRY 1 True, SHIFT 8256]),
    (11238, [ENTRY 1 True, SHIFT 2264]), (11240, [ENTRY 1 True, SHIFT 8263]),
    (11242, [ENTRY 1 True, SHIFT 1499]), (11244, [ENTRY 1 True, SHIFT 2419]),
    (11246, [ENTRY 1 True, SHIFT 8827]), (11248, [ENTRY 1 True, SHIFT 2267]),
    (11250, [ENTRY 1 True, SHIFT 2270]), (11252, [ENTRY 1 True, SHIFT 2271]),
    (11254, [ENTRY 1 True, SHIFT 8275]), (11256, [ENTRY 1 True, SHIFT 2273]),
    (11258, [ENTRY 1 True, SHIFT 8282]), (11260, [ENTRY 1 True, SHIFT 2276]),
    (11262, [ENTRY 1 True, SHIFT 2275]), (11264, [ENTRY 1 True, SHIFT 8288]),
    (11266, [ENTRY 1 True, SHIFT 2277]), (11268, [ENTRY 1 True, SHIFT 8290]),
    (11270, [ENTRY 1 True, SHIFT 2224]), (11272, [ENTRY 1 True, SHIFT 8251]),
    (11274, [ENTRY 1 True, SHIFT 2225]), (11276, [ENTRY 1 True, SHIFT 2234]),
    (11278, [ENTRY 1 True, SHIFT 2236]), (11280, [ENTRY 1 True, SHIFT 8364]),
    (11282, [ENTRY 1 True, SHIFT 2805]), (11284, [ENTRY 1 True, SHIFT 8238]),
    (11286, [ENTRY 1 True, SHIFT 2250]), (11288, [ENTRY 1 False, SHIFT 4102]),
    (11290, [ENTRY 1 True, SHIFT 4143]), (11292, [ENTRY 1 True, SHIFT 12694]),
    (11294, [ENTRY 1 True, SHIFT 3976]), (11296, [ENTRY 1 True, SHIFT 4104]),
    (11298, [ENTRY 1 True, SHIFT 4105])]"

definition parse_actions_37 :: "(nat \<times> TSParseActionEntry list) list" where "parse_actions_37 = [
    (11300, [ENTRY 1 True, SHIFT 1230]), (11302, [ENTRY 1 True, SHIFT 2714]),
    (11304, [ENTRY 1 True, SHIFT 8636]), (11306, [ENTRY 1 True, SHIFT 2808]),
    (11308, [ENTRY 1 True, SHIFT 2811]), (11310, [ENTRY 1 True, SHIFT 8258]),
    (11312, [ENTRY 1 True, SHIFT 3964]), (11314, [ENTRY 1 True, SHIFT 2815]),
    (11316, [ENTRY 1 True, SHIFT 8261]), (11318, [ENTRY 1 True, REDUCE sym_member_type 3 0 0]),
    (11320, [ENTRY 1 True, REDUCE sym_type_parameter 3 0 5]), (11322, [ENTRY 1 True, SHIFT 1234]),
    (11324, [ENTRY 1 True, SHIFT 2715]), (11326, [ENTRY 1 True, SHIFT 8642]),
    (11328, [ENTRY 1 True, REDUCE sym_type_parameter 3 0 0]), (11330, [ENTRY 1 True, SHIFT 1240]),
    (11332, [ENTRY 1 True, SHIFT 2718]), (11334, [ENTRY 1 True, SHIFT 8645]),
    (11336, [ENTRY 1 True, SHIFT 1273]), (11338, [ENTRY 1 True, SHIFT 2160]),
    (11340, [ENTRY 1 True, SHIFT 8666]), (11342, [ENTRY 1 True, SHIFT 2181]),
    (11344, [ENTRY 1 True, SHIFT 1247]), (11346, [ENTRY 1 True, SHIFT 2721]),
    (11348, [ENTRY 1 True, SHIFT 8649]), (11350, [ENTRY 1 True, SHIFT 2187]),
    (11352, [ENTRY 1 True, SHIFT 1312]), (11354, [ENTRY 1 True, SHIFT 2740]),
    (11356, [ENTRY 1 True, SHIFT 8654]), (11358, [ENTRY 1 True, SHIFT 1332]),
    (11360, [ENTRY 1 True, SHIFT 2742]), (11362, [ENTRY 1 True, SHIFT 8658]),
    (11364, [ENTRY 1 True, SHIFT 1356]), (11366, [ENTRY 1 True, SHIFT 2746]),
    (11368, [ENTRY 1 True, SHIFT 8661]), (11370, [ENTRY 1 True, SHIFT 1357]),
    (11372, [ENTRY 1 True, SHIFT 2747]), (11374, [ENTRY 1 True, SHIFT 8663]),
    (11376, [ENTRY 1 True, SHIFT 2281]), (11378, [ENTRY 1 True, SHIFT 2820]),
    (11380, [ENTRY 1 True, SHIFT 8268]), (11382, [ENTRY 1 True, SHIFT 2824]),
    (11384, [ENTRY 1 True, SHIFT 2821]), (11386, [ENTRY 1 True, SHIFT 8272]),
    (11388, [ENTRY 1 True, SHIFT 2509]), (11390, [ENTRY 1 True, SHIFT 8273]),
    (11392, [ENTRY 1 True, SHIFT 2112]), (11394, [ENTRY 1 True, SHIFT 2113]),
    (11396, [ENTRY 1 True, SHIFT 8277]), (11398, [ENTRY 1 True, SHIFT 2285]),
    (11400, [ENTRY 1 True, SHIFT 2286]), (11402, [ENTRY 1 True, SHIFT 8311]),
    (11404, [ENTRY 1 True, SHIFT 1381]), (11406, [ENTRY 1 True, SHIFT 2750]),
    (11408, [ENTRY 1 True, SHIFT 8668]), (11410, [ENTRY 1 True, SHIFT 1382]),
    (11412, [ENTRY 1 True, SHIFT 2751]), (11414, [ENTRY 1 True, SHIFT 8670]),
    (11416, [ENTRY 1 True, SHIFT 1412]), (11418, [ENTRY 1 True, SHIFT 2759]),
    (11420, [ENTRY 1 True, SHIFT 8674]), (11422, [ENTRY 1 True, SHIFT 2117]),
    (11424, [ENTRY 1 True, SHIFT 2116]), (11426, [ENTRY 1 True, SHIFT 8281]),
    (11428, [ENTRY 1 True, SHIFT 2118]), (11430, [ENTRY 1 True, SHIFT 8283]),
    (11432, [ENTRY 1 True, SHIFT 1434]), (11434, [ENTRY 1 True, SHIFT 2767]),
    (11436, [ENTRY 1 True, SHIFT 8681]), (11438, [ENTRY 1 True, SHIFT 2125]),
    (11440, [ENTRY 1 True, SHIFT 2131]), (11442, [ENTRY 1 True, SHIFT 2132]),
    (11444, [ENTRY 1 True, SHIFT 8289]), (11446, [ENTRY 1 True, SHIFT 2291]),
    (11448, [ENTRY 1 True, SHIFT 2135]), (11450, [ENTRY 1 True, SHIFT 8196]),
    (11452, [ENTRY 1 True, SHIFT 2137]), (11454, [ENTRY 1 True, SHIFT 2136]),
    (11456, [ENTRY 1 True, SHIFT 8295]), (11458, [ENTRY 1 True, SHIFT 2140]),
    (11460, [ENTRY 1 True, SHIFT 8296]), (11462, [ENTRY 1 True, SHIFT 2193]),
    (11464, [ENTRY 1 True, SHIFT 8212]), (11466, [ENTRY 1 True, SHIFT 2144]),
    (11468, [ENTRY 1 True, SHIFT 2293]), (11470, [ENTRY 1 True, SHIFT 2146]),
    (11472, [ENTRY 1 True, SHIFT 2148]), (11474, [ENTRY 1 True, SHIFT 8298]),
    (11476, [ENTRY 1 True, SHIFT 2292]), (11478, [ENTRY 1 True, SHIFT 8312]),
    (11480, [ENTRY 1 True, SHIFT 2295]), (11482, [ENTRY 1 True, SHIFT 8313]),
    (11484, [ENTRY 1 True, SHIFT 2298]), (11486, [ENTRY 1 True, SHIFT 2158]),
    (11488, [ENTRY 1 True, SHIFT 2301]), (11490, [ENTRY 1 True, SHIFT 2302]),
    (11492, [ENTRY 1 True, SHIFT 8315]), (11494, [ENTRY 1 True, SHIFT 2159]),
    (11496, [ENTRY 1 True, SHIFT 8300]), (11498, [ENTRY 1 True, SHIFT 2163]),
    (11500, [ENTRY 1 True, SHIFT 8301]), (11502, [ENTRY 1 True, SHIFT 2166]),
    (11504, [ENTRY 1 True, SHIFT 2171]), (11506, [ENTRY 1 True, SHIFT 2172]),
    (11508, [ENTRY 1 True, SHIFT 8304]), (11510, [ENTRY 1 True, SHIFT 2178]),
    (11512, [ENTRY 1 True, REDUCE sym_type_parameter 4 0 5]), (11514, [ENTRY 1 True, SHIFT 2198]),
    (11516, [ENTRY 1 True, SHIFT 2207]), (11518, [ENTRY 1 True, SHIFT 2213]),
    (11520, [ENTRY 1 True, SHIFT 8308]), (11522, [ENTRY 1 True, REDUCE sym_type_parameter 4 0 94]),
    (11524, [ENTRY 1 True, SHIFT 2233]), (11526, [ENTRY 1 True, REDUCE sym_type_parameter 4 0 0]),
    (11528, [ENTRY 1 True, SHIFT 1635]), (11530, [ENTRY 1 True, SHIFT 2354]),
    (11532, [ENTRY 1 True, SHIFT 8829]), (11534, [ENTRY 1 True, REDUCE sym_type_parameter 4 0 96]),
    (11536, [ENTRY 1 True, SHIFT 2274]), (11538, [ENTRY 1 True, SHIFT 2204]),
    (11540, [ENTRY 1 True, SHIFT 2307]), (11542, [ENTRY 1 True, SHIFT 2313]),
    (11544, [ENTRY 1 True, SHIFT 2316]), (11546, [ENTRY 1 True, SHIFT 2317]),
    (11548, [ENTRY 1 True, SHIFT 8378]), (11550, [ENTRY 1 True, SHIFT 2322]),
    (11552, [ENTRY 1 True, REDUCE aux_sym_called_type_repeat1 3 0 0]),
    (11554, [ENTRY 1 True, SHIFT 2246]), (11556, [ENTRY 1 True, SHIFT 2248]),
    (11558, [ENTRY 1 True, SHIFT 8203]), (11560, [ENTRY 1 True, SHIFT 2182]),
    (11562, [ENTRY 1 True, SHIFT 8487]), (11564, [ENTRY 1 True, SHIFT 2190]),
    (11566, [ENTRY 1 True, SHIFT 2186]), (11568, [ENTRY 1 True, SHIFT 8348]),
    (11570, [ENTRY 1 True, SHIFT 2191]), (11572, [ENTRY 1 True, SHIFT 8352]),
    (11574, [ENTRY 1 True, SHIFT 2256]), (11576, [ENTRY 1 True, SHIFT 2282]),
    (11578, [ENTRY 1 True, SHIFT 8365]), (11580, [ENTRY 1 True, SHIFT 2249]),
    (11582, [ENTRY 1 True, SHIFT 8209]),
    (11584, [ENTRY 1 True, REDUCE sym_type_parameter 5 0 129]),
    (11586, [ENTRY 1 True, REDUCE sym_type_parameter 5 0 130]),
    (11588, [ENTRY 1 True, REDUCE sym_type_parameter 5 0 94]),
    (11590, [ENTRY 1 True, REDUCE sym_type_parameter 5 0 96]),
    (11592, [ENTRY 1 True, REDUCE sym_type_parameter 5 0 131]),
    (11594, [ENTRY 1 True, REDUCE sym_type_parameter 5 0 0]),
    (11596, [ENTRY 1 True, REDUCE sym_type_parameter 5 0 132]),
    (11598, [ENTRY 1 True, SHIFT 2217])]"

definition parse_actions_38 :: "(nat \<times> TSParseActionEntry list) list" where "parse_actions_38 = [
    (11600, [ENTRY 1 True, REDUCE sym_type_parameter 6 0 129]),
    (11602, [ENTRY 1 True, REDUCE sym_type_parameter 6 0 167]),
    (11604, [ENTRY 1 True, SHIFT 1716]), (11606, [ENTRY 1 True, SHIFT 2812]),
    (11608, [ENTRY 1 True, SHIFT 8624]),
    (11610, [ENTRY 1 True, REDUCE sym_type_parameter 6 0 168]),
    (11612, [ENTRY 1 True, REDUCE sym_type_parameter 6 0 131]),
    (11614, [ENTRY 1 True, REDUCE sym_type_parameter 6 0 169]),
    (11616, [ENTRY 1 True, REDUCE sym_type_parameter 6 0 132]),
    (11618, [ENTRY 1 True, SHIFT 2210]), (11620, [ENTRY 1 True, SHIFT 8228]),
    (11622, [ENTRY 1 True, SHIFT 2220]), (11624, [ENTRY 1 True, SHIFT 8229]),
    (11626, [ENTRY 1 True, SHIFT 2235]), (11628, [ENTRY 1 True, SHIFT 2237]),
    (11630, [ENTRY 1 True, SHIFT 2240]), (11632, [ENTRY 1 True, SHIFT 2243]),
    (11634, [ENTRY 1 True, SHIFT 8232]),
    (11636, [ENTRY 1 True, REDUCE aux_sym__function_effects 2 0 74]),
    (11638, [ENTRY 2 True, REDUCE aux_sym__function_effects 2 0 74, SHIFT_REPEAT 1869]),
    (11641, [ENTRY 2 True, REDUCE aux_sym__function_effects 2 0 74, SHIFT_REPEAT 8240]),
    (11644, [ENTRY 2 True, REDUCE aux_sym__function_effects 2 0 74, SHIFT_REPEAT 8351]),
    (11647, [ENTRY 2 True, REDUCE aux_sym__function_effects 2 0 74, SHIFT_REPEAT 12680]),
    (11650, [ENTRY 1 True, SHIFT 2392]), (11652, [ENTRY 1 True, SHIFT 1445]),
    (11654, [ENTRY 1 True, SHIFT 2346]), (11656, [ENTRY 1 True, SHIFT 8693]),
    (11658, [ENTRY 1 True, SHIFT 1449]), (11660, [ENTRY 1 True, SHIFT 2355]),
    (11662, [ENTRY 1 True, SHIFT 8695]), (11664, [ENTRY 1 True, SHIFT 2394]),
    (11666, [ENTRY 1 True, SHIFT 8310]), (11668, [ENTRY 1 True, SHIFT 2803]),
    (11670, [ENTRY 1 True, SHIFT 2810]), (11672, [ENTRY 1 True, SHIFT 8320]),
    (11674, [ENTRY 1 True, SHIFT 2825]), (11676, [ENTRY 1 True, SHIFT 8323]),
    (11678, [ENTRY 1 True, SHIFT 1744]), (11680, [ENTRY 1 True, SHIFT 2126]),
    (11682, [ENTRY 1 True, SHIFT 8835]), (11684, [ENTRY 1 True, SHIFT 2130]),
    (11686, [ENTRY 1 True, SHIFT 8356]), (11688, [ENTRY 1 True, SHIFT 2405]),
    (11690, [ENTRY 1 True, SHIFT 8337]), (11692, [ENTRY 1 True, SHIFT 2154]),
    (11694, [ENTRY 1 True, SHIFT 2702]), (11696, [ENTRY 1 True, SHIFT 2424]),
    (11698, [ENTRY 1 True, SHIFT 8347]), (11700, [ENTRY 1 True, SHIFT 2703]),
    (11702, [ENTRY 1 True, SHIFT 8349]), (11704, [ENTRY 1 True, SHIFT 2425]),
    (11706, [ENTRY 1 True, SHIFT 8369]), (11708, [ENTRY 1 True, SHIFT 2427]),
    (11710, [ENTRY 1 True, SHIFT 2428]), (11712, [ENTRY 1 True, SHIFT 8373]),
    (11714, [ENTRY 1 True, SHIFT 2429]), (11716, [ENTRY 1 True, SHIFT 8376]),
    (11718, [ENTRY 1 True, SHIFT 2431]), (11720, [ENTRY 1 True, SHIFT 8379]),
    (11722, [ENTRY 1 True, SHIFT 2433]), (11724, [ENTRY 1 True, SHIFT 2432]),
    (11726, [ENTRY 1 True, SHIFT 8382]), (11728, [ENTRY 1 True, SHIFT 2434]),
    (11730, [ENTRY 1 True, SHIFT 8383]), (11732, [ENTRY 1 True, SHIFT 2436]),
    (11734, [ENTRY 1 True, SHIFT 2437]), (11736, [ENTRY 1 True, SHIFT 8386]),
    (11738, [ENTRY 1 True, SHIFT 2327]), (11740, [ENTRY 1 True, SHIFT 2439]),
    (11742, [ENTRY 1 True, SHIFT 2438]), (11744, [ENTRY 1 True, SHIFT 8389]),
    (11746, [ENTRY 1 True, SHIFT 2440]), (11748, [ENTRY 1 True, SHIFT 8390]),
    (11750, [ENTRY 1 True, SHIFT 2443]), (11752, [ENTRY 1 True, SHIFT 2445]),
    (11754, [ENTRY 1 True, SHIFT 2446]), (11756, [ENTRY 1 True, SHIFT 8392]),
    (11758, [ENTRY 1 True, SHIFT 2448]), (11760, [ENTRY 1 True, SHIFT 8393]),
    (11762, [ENTRY 1 True, SHIFT 2450]), (11764, [ENTRY 1 True, SHIFT 2449]),
    (11766, [ENTRY 1 True, SHIFT 8396]), (11768, [ENTRY 1 True, SHIFT 2451]),
    (11770, [ENTRY 1 True, SHIFT 8397]), (11772, [ENTRY 1 True, SHIFT 2454]),
    (11774, [ENTRY 1 True, SHIFT 2456]), (11776, [ENTRY 1 True, SHIFT 2457]),
    (11778, [ENTRY 1 True, SHIFT 8399]), (11780, [ENTRY 1 True, SHIFT 2461]),
    (11782, [ENTRY 1 True, SHIFT 2463]), (11784, [ENTRY 1 True, SHIFT 2462]),
    (11786, [ENTRY 1 True, SHIFT 8400]), (11788, [ENTRY 1 True, SHIFT 2464]),
    (11790, [ENTRY 1 True, SHIFT 8401]), (11792, [ENTRY 1 True, SHIFT 2467]),
    (11794, [ENTRY 1 True, SHIFT 2469]), (11796, [ENTRY 1 True, SHIFT 2470]),
    (11798, [ENTRY 1 True, SHIFT 8403]), (11800, [ENTRY 1 True, SHIFT 2474]),
    (11802, [ENTRY 1 True, SHIFT 2478]), (11804, [ENTRY 1 True, SHIFT 2480]),
    (11806, [ENTRY 1 True, SHIFT 2481]), (11808, [ENTRY 1 True, SHIFT 8404]),
    (11810, [ENTRY 1 True, SHIFT 2485]), (11812, [ENTRY 1 True, SHIFT 2490]),
    (11814, [ENTRY 1 True, SHIFT 1658]), (11816, [ENTRY 1 True, SHIFT 2386]),
    (11818, [ENTRY 1 True, SHIFT 8656]), (11820, [ENTRY 1 True, SHIFT 2494]),
    (11822, [ENTRY 1 True, SHIFT 8408]), (11824, [ENTRY 1 True, SHIFT 2496]),
    (11826, [ENTRY 1 True, SHIFT 2497]), (11828, [ENTRY 1 True, SHIFT 8412]),
    (11830, [ENTRY 1 True, SHIFT 2498]), (11832, [ENTRY 1 True, SHIFT 8415]),
    (11834, [ENTRY 1 True, SHIFT 2500]), (11836, [ENTRY 1 True, SHIFT 8417]),
    (11838, [ENTRY 1 True, SHIFT 2502]), (11840, [ENTRY 1 True, SHIFT 2501]),
    (11842, [ENTRY 1 True, SHIFT 8420]), (11844, [ENTRY 1 True, SHIFT 2503]),
    (11846, [ENTRY 1 True, SHIFT 8421]), (11848, [ENTRY 1 True, SHIFT 2505]),
    (11850, [ENTRY 1 True, SHIFT 2506]), (11852, [ENTRY 1 True, SHIFT 8424]),
    (11854, [ENTRY 1 True, SHIFT 2508]), (11856, [ENTRY 1 True, SHIFT 2507]),
    (11858, [ENTRY 1 True, SHIFT 8427]), (11860, [ENTRY 1 True, SHIFT 2827]),
    (11862, [ENTRY 1 True, SHIFT 8428]), (11864, [ENTRY 1 True, SHIFT 2512]),
    (11866, [ENTRY 1 True, SHIFT 2514]), (11868, [ENTRY 1 True, SHIFT 2515]),
    (11870, [ENTRY 1 True, SHIFT 8430]), (11872, [ENTRY 1 True, SHIFT 2517]),
    (11874, [ENTRY 1 True, SHIFT 8431]), (11876, [ENTRY 1 True, SHIFT 2519]),
    (11878, [ENTRY 1 True, SHIFT 2518]), (11880, [ENTRY 1 True, SHIFT 8434]),
    (11882, [ENTRY 1 True, SHIFT 2520]), (11884, [ENTRY 1 True, SHIFT 8435]),
    (11886, [ENTRY 1 True, SHIFT 2523]), (11888, [ENTRY 1 True, SHIFT 2525]),
    (11890, [ENTRY 1 True, SHIFT 2526]), (11892, [ENTRY 1 True, SHIFT 8437]),
    (11894, [ENTRY 1 True, SHIFT 2530]), (11896, [ENTRY 1 True, SHIFT 2532]),
    (11898, [ENTRY 1 True, SHIFT 2531]), (11900, [ENTRY 1 True, SHIFT 8438]),
    (11902, [ENTRY 1 True, SHIFT 2533])]"

definition parse_actions_39 :: "(nat \<times> TSParseActionEntry list) list" where "parse_actions_39 = [
    (11904, [ENTRY 1 True, SHIFT 8439]), (11906, [ENTRY 1 True, SHIFT 2536]),
    (11908, [ENTRY 1 True, SHIFT 2538]), (11910, [ENTRY 1 True, SHIFT 2539]),
    (11912, [ENTRY 1 True, SHIFT 8441]), (11914, [ENTRY 1 True, SHIFT 2543]),
    (11916, [ENTRY 1 True, SHIFT 2547]), (11918, [ENTRY 1 True, SHIFT 2549]),
    (11920, [ENTRY 1 True, SHIFT 2550]), (11922, [ENTRY 1 True, SHIFT 8442]),
    (11924, [ENTRY 1 True, SHIFT 2554]), (11926, [ENTRY 1 True, SHIFT 2559]),
    (11928, [ENTRY 1 True, SHIFT 2632]), (11930, [ENTRY 1 True, SHIFT 8444]),
    (11932, [ENTRY 1 True, SHIFT 2634]), (11934, [ENTRY 1 True, SHIFT 2635]),
    (11936, [ENTRY 1 True, SHIFT 8448]), (11938, [ENTRY 1 True, SHIFT 2636]),
    (11940, [ENTRY 1 True, SHIFT 8451]), (11942, [ENTRY 1 True, SHIFT 2638]),
    (11944, [ENTRY 1 True, SHIFT 8453]), (11946, [ENTRY 1 True, SHIFT 2640]),
    (11948, [ENTRY 1 True, SHIFT 2639]), (11950, [ENTRY 1 True, SHIFT 8456]),
    (11952, [ENTRY 1 True, SHIFT 2641]), (11954, [ENTRY 1 True, SHIFT 8457]),
    (11956, [ENTRY 1 True, SHIFT 2643]), (11958, [ENTRY 1 True, SHIFT 2644]),
    (11960, [ENTRY 1 True, SHIFT 8460]), (11962, [ENTRY 1 True, SHIFT 2646]),
    (11964, [ENTRY 1 True, SHIFT 2645]), (11966, [ENTRY 1 True, SHIFT 8463]),
    (11968, [ENTRY 1 True, SHIFT 2647]), (11970, [ENTRY 1 True, SHIFT 8464]),
    (11972, [ENTRY 1 True, SHIFT 2650]), (11974, [ENTRY 1 True, SHIFT 2652]),
    (11976, [ENTRY 1 True, SHIFT 2653]), (11978, [ENTRY 1 True, SHIFT 8466]),
    (11980, [ENTRY 1 True, SHIFT 2655]), (11982, [ENTRY 1 True, SHIFT 8467]),
    (11984, [ENTRY 1 True, SHIFT 2657]), (11986, [ENTRY 1 True, SHIFT 2656]),
    (11988, [ENTRY 1 True, SHIFT 8470]), (11990, [ENTRY 1 True, SHIFT 2658]),
    (11992, [ENTRY 1 True, SHIFT 8471]), (11994, [ENTRY 1 True, SHIFT 2661]),
    (11996, [ENTRY 1 True, SHIFT 2663]), (11998, [ENTRY 1 True, SHIFT 2664]),
    (12000, [ENTRY 1 True, SHIFT 8473]), (12002, [ENTRY 1 True, SHIFT 2668]),
    (12004, [ENTRY 1 True, SHIFT 2670]), (12006, [ENTRY 1 True, SHIFT 2669]),
    (12008, [ENTRY 1 True, SHIFT 8474]), (12010, [ENTRY 1 True, SHIFT 2671]),
    (12012, [ENTRY 1 True, SHIFT 8475]), (12014, [ENTRY 1 True, SHIFT 2674]),
    (12016, [ENTRY 1 True, SHIFT 2676]), (12018, [ENTRY 1 True, SHIFT 2677]),
    (12020, [ENTRY 1 True, SHIFT 8477]), (12022, [ENTRY 1 True, SHIFT 2681]),
    (12024, [ENTRY 1 True, SHIFT 2685]), (12026, [ENTRY 1 True, SHIFT 2687]),
    (12028, [ENTRY 1 True, SHIFT 2688]), (12030, [ENTRY 1 True, SHIFT 8478]),
    (12032, [ENTRY 1 True, SHIFT 2692]), (12034, [ENTRY 1 True, SHIFT 2697]),
    (12036, [ENTRY 1 True, SHIFT 1261]), (12038, [ENTRY 1 True, SHIFT 2138]),
    (12040, [ENTRY 1 True, SHIFT 8837]),
    (12042, [ENTRY 1 True, REDUCE sym_type_parameter 7 0 218]),
    (12044, [ENTRY 1 True, REDUCE sym_type_parameter 7 0 167]),
    (12046, [ENTRY 1 True, REDUCE sym_type_parameter 7 0 168]),
    (12048, [ENTRY 1 True, REDUCE sym_type_parameter 7 0 131]),
    (12050, [ENTRY 1 True, REDUCE sym_type_parameter 7 0 219]),
    (12052, [ENTRY 1 True, REDUCE sym_type_parameter 7 0 169]),
    (12054, [ENTRY 1 True, SHIFT 2222]), (12056, [ENTRY 1 True, SHIFT 2216]),
    (12058, [ENTRY 1 True, SHIFT 8249]),
    (12060, [ENTRY 1 True, REDUCE sym_type_parameter 6 0 130]),
    (12062, [ENTRY 1 True, SHIFT 3968]), (12064, [ENTRY 1 True, SHIFT 3954]),
    (12066, [ENTRY 2 True, REDUCE aux_sym__function_effects 2 0 74, SHIFT_REPEAT 1875]),
    (12069, [ENTRY 2 True, REDUCE aux_sym__function_effects 2 0 74, SHIFT_REPEAT 8502]),
    (12072, [ENTRY 2 True, REDUCE aux_sym__function_effects 2 0 74, SHIFT_REPEAT 8503]),
    (12075, [ENTRY 2 True, REDUCE aux_sym__function_effects 2 0 74, SHIFT_REPEAT 12570]),
    (12078, [ENTRY 2 True, REDUCE aux_sym__function_effects 2 0 74, SHIFT_REPEAT 1880]),
    (12081, [ENTRY 2 True, REDUCE aux_sym__function_effects 2 0 74, SHIFT_REPEAT 8585]),
    (12084, [ENTRY 2 True, REDUCE aux_sym__function_effects 2 0 74, SHIFT_REPEAT 8529]),
    (12087, [ENTRY 2 True, REDUCE aux_sym__function_effects 2 0 74, SHIFT_REPEAT 12695]),
    (12090, [ENTRY 2 True, REDUCE aux_sym__function_effects 2 0 74, SHIFT_REPEAT 1876]),
    (12093, [ENTRY 2 True, REDUCE aux_sym__function_effects 2 0 74, SHIFT_REPEAT 8498]),
    (12096, [ENTRY 2 True, REDUCE aux_sym__function_effects 2 0 74, SHIFT_REPEAT 8543]),
    (12099, [ENTRY 2 True, REDUCE aux_sym__function_effects 2 0 74, SHIFT_REPEAT 12682]),
    (12102, [ENTRY 1 True, SHIFT 12743]), (12104, [ENTRY 1 True, REDUCE sym_called_type 2 0 0]),
    (12106, [ENTRY 1 True, REDUCE sym_called_type 3 0 0]), (12108, [ENTRY 1 True, SHIFT 3959]),
    (12110, [ENTRY 2 True, REDUCE aux_sym_called_type_repeat1 2 0 0, SHIFT_REPEAT 12743]),
    (12113, [ENTRY 1 True, REDUCE sym_called_type 4 0 0]), (12115, [ENTRY 1 True, SHIFT 1703]),
    (12117, [ENTRY 1 True, SHIFT 2710]), (12119, [ENTRY 1 True, SHIFT 9596]),
    (12121, [ENTRY 1 True, SHIFT 1535]), (12123, [ENTRY 1 True, SHIFT 2114]),
    (12125, [ENTRY 1 True, SHIFT 1529]), (12127, [ENTRY 1 True, SHIFT 2109]),
    (12129, [ENTRY 1 True, SHIFT 8830]), (12131, [ENTRY 1 True, SHIFT 1541]),
    (12133, [ENTRY 1 True, SHIFT 2124]), (12135, [ENTRY 1 True, SHIFT 1538]),
    (12137, [ENTRY 1 True, SHIFT 2119]), (12139, [ENTRY 1 True, SHIFT 8831]),
    (12141, [ENTRY 1 True, SHIFT 1341]), (12143, [ENTRY 1 True, SHIFT 2406]),
    (12145, [ENTRY 1 True, SHIFT 1339]), (12147, [ENTRY 1 True, SHIFT 2403]),
    (12149, [ENTRY 1 True, SHIFT 8765]), (12151, [ENTRY 1 True, SHIFT 12610]),
    (12153, [ENTRY 1 True, SHIFT 12580]), (12155, [ENTRY 1 True, SHIFT 12493]),
    (12157, [ENTRY 1 True, SHIFT 1467]), (12159, [ENTRY 1 True, SHIFT 2384]),
    (12161, [ENTRY 1 True, REDUCE sym_union_type 3 0 0]),
    (12163, [ENTRY 1 True, REDUCE sym_intersection_type 3 0 0]),
    (12165, [ENTRY 1 True, SHIFT 1239]), (12167, [ENTRY 1 True, SHIFT 2717]),
    (12169, [ENTRY 1 True, SHIFT 1238]), (12171, [ENTRY 1 True, SHIFT 2716]),
    (12173, [ENTRY 1 True, SHIFT 8644]),
    (12175, [ENTRY 2 True, REDUCE aux_sym_called_type_repeat1 2 0 0, SHIFT_REPEAT 12493]),
    (12178, [ENTRY 1 True, REDUCE aux_sym__function_effects 2 0 73]),
    (12180, [ENTRY 1 True, SHIFT 1387]), (12182, [ENTRY 1 True, SHIFT 2133]),
    (12184, [ENTRY 1 True, SHIFT 1246]), (12186, [ENTRY 1 True, SHIFT 2720]),
    (12188, [ENTRY 1 True, SHIFT 1245]), (12190, [ENTRY 1 True, SHIFT 2719]),
    (12192, [ENTRY 1 True, SHIFT 8648]), (12194, [ENTRY 1 True, SHIFT 1257]),
    (12196, [ENTRY 1 True, SHIFT 2724]), (12198, [ENTRY 1 True, SHIFT 1260]),
    (12200, [ENTRY 1 True, SHIFT 2726]), (12202, [ENTRY 1 True, SHIFT 1259]),
    (12204, [ENTRY 1 True, SHIFT 2725]), (12206, [ENTRY 1 True, SHIFT 8651]),
    (12208, [ENTRY 1 True, REDUCE aux_sym__function_effects 2 0 0]),
    (12210, [ENTRY 1 True, SHIFT 1270]), (12212, [ENTRY 1 True, SHIFT 2729]),
    (12214, [ENTRY 1 True, SHIFT 1272]), (12216, [ENTRY 1 True, SHIFT 2731])]"

definition parse_actions_40 :: "(nat \<times> TSParseActionEntry list) list" where "parse_actions_40 = [
    (12218, [ENTRY 1 True, SHIFT 1271]), (12220, [ENTRY 1 True, SHIFT 2730]),
    (12222, [ENTRY 1 True, SHIFT 8652]), (12224, [ENTRY 1 True, SHIFT 1291]),
    (12226, [ENTRY 1 True, SHIFT 2735]), (12228, [ENTRY 1 True, SHIFT 1310]),
    (12230, [ENTRY 1 True, SHIFT 2739]),
    (12232, [ENTRY 1 True, REDUCE sym_intersection_type 4 0 0]),
    (12234, [ENTRY 1 True, SHIFT 1355]), (12236, [ENTRY 1 True, SHIFT 2745]),
    (12238, [ENTRY 1 True, SHIFT 1354]), (12240, [ENTRY 1 True, SHIFT 2744]),
    (12242, [ENTRY 1 True, SHIFT 8660]), (12244, [ENTRY 1 True, SHIFT 1267]),
    (12246, [ENTRY 1 True, SHIFT 2152]), (12248, [ENTRY 1 True, SHIFT 1252]),
    (12250, [ENTRY 1 True, SHIFT 2139]), (12252, [ENTRY 1 True, SHIFT 8633]),
    (12254, [ENTRY 1 True, SHIFT 1380]), (12256, [ENTRY 1 True, SHIFT 2749]),
    (12258, [ENTRY 1 True, SHIFT 1379]), (12260, [ENTRY 1 True, SHIFT 2748]),
    (12262, [ENTRY 1 True, SHIFT 8667]), (12264, [ENTRY 1 True, SHIFT 1406]),
    (12266, [ENTRY 1 True, SHIFT 2754]), (12268, [ENTRY 1 True, SHIFT 1408]),
    (12270, [ENTRY 1 True, SHIFT 2756]), (12272, [ENTRY 1 True, SHIFT 1407]),
    (12274, [ENTRY 1 True, SHIFT 2755]), (12276, [ENTRY 1 True, SHIFT 8672]),
    (12278, [ENTRY 1 True, SHIFT 1411]), (12280, [ENTRY 1 True, SHIFT 2758]),
    (12282, [ENTRY 1 True, SHIFT 1410]), (12284, [ENTRY 1 True, SHIFT 2757]),
    (12286, [ENTRY 1 True, SHIFT 8673]),
    (12288, [ENTRY 1 True, REDUCE sym_result_convention 3 0 0]),
    (12290, [ENTRY 1 True, SHIFT 1484]), (12292, [ENTRY 1 True, SHIFT 2400]),
    (12294, [ENTRY 1 True, SHIFT 1429]), (12296, [ENTRY 1 True, SHIFT 2762]),
    (12298, [ENTRY 1 True, SHIFT 1431]), (12300, [ENTRY 1 True, SHIFT 2764]),
    (12302, [ENTRY 1 True, SHIFT 1430]), (12304, [ENTRY 1 True, SHIFT 2763]),
    (12306, [ENTRY 1 True, SHIFT 8679]), (12308, [ENTRY 1 True, SHIFT 1433]),
    (12310, [ENTRY 1 True, SHIFT 2766]), (12312, [ENTRY 1 True, SHIFT 1432]),
    (12314, [ENTRY 1 True, SHIFT 2765]), (12316, [ENTRY 1 True, SHIFT 8680]),
    (12318, [ENTRY 1 True, SHIFT 1472]), (12320, [ENTRY 1 True, SHIFT 2771]),
    (12322, [ENTRY 1 True, SHIFT 1478]), (12324, [ENTRY 1 True, SHIFT 2774]),
    (12326, [ENTRY 1 True, SHIFT 1481]), (12328, [ENTRY 1 True, SHIFT 2776]),
    (12330, [ENTRY 1 True, SHIFT 1480]), (12332, [ENTRY 1 True, SHIFT 2775]),
    (12334, [ENTRY 1 True, SHIFT 8683]), (12336, [ENTRY 1 True, SHIFT 1479]),
    (12338, [ENTRY 1 True, SHIFT 2397]), (12340, [ENTRY 1 True, SHIFT 8617]),
    (12342, [ENTRY 2 True, REDUCE aux_sym_called_type_repeat1 2 0 0, SHIFT_REPEAT 12580]),
    (12345, [ENTRY 1 True, SHIFT 1511]), (12347, [ENTRY 1 True, SHIFT 2780]),
    (12349, [ENTRY 1 True, SHIFT 1517]), (12351, [ENTRY 1 True, SHIFT 2783]),
    (12353, [ENTRY 1 True, SHIFT 1520]), (12355, [ENTRY 1 True, SHIFT 2785]),
    (12357, [ENTRY 1 True, SHIFT 1519]), (12359, [ENTRY 1 True, SHIFT 2784]),
    (12361, [ENTRY 1 True, SHIFT 8684]), (12363, [ENTRY 1 True, SHIFT 1571]),
    (12365, [ENTRY 1 True, SHIFT 2790]), (12367, [ENTRY 1 True, SHIFT 1604]),
    (12369, [ENTRY 1 True, SHIFT 2795]),
    (12371, [ENTRY 1 True, REDUCE sym_result_convention 4 0 0]),
    (12373, [ENTRY 1 True, REDUCE sym_capture_list 3 0 0]),
    (12375, [ENTRY 1 True, REDUCE sym_abi_specifier 4 0 0]), (12377, [ENTRY 1 True, SHIFT 1622]),
    (12379, [ENTRY 1 True, SHIFT 2333]),
    (12381, [ENTRY 1 True, REDUCE aux_sym_called_type_repeat1 4 0 0]),
    (12383, [ENTRY 1 True, SHIFT 1794]), (12385, [ENTRY 1 True, SHIFT 2197]),
    (12387, [ENTRY 1 True, SHIFT 1628]), (12389, [ENTRY 1 True, SHIFT 2342]),
    (12391, [ENTRY 1 True, SHIFT 1624]), (12393, [ENTRY 1 True, SHIFT 2339]),
    (12395, [ENTRY 1 True, SHIFT 8691]), (12397, [ENTRY 1 True, SHIFT 1633]),
    (12399, [ENTRY 1 True, SHIFT 2350]), (12401, [ENTRY 1 True, SHIFT 1631]),
    (12403, [ENTRY 1 True, SHIFT 2347]), (12405, [ENTRY 1 True, SHIFT 8828]),
    (12407, [ENTRY 1 True, SHIFT 12598]),
    (12409, [ENTRY 1 True, REDUCE sym_constrained_type 3 0 0]),
    (12411, [ENTRY 1 True, SHIFT 3383]), (12413, [ENTRY 1 True, SHIFT 3384]),
    (12415, [ENTRY 1 True, REDUCE sym_function_type 5 0 113]),
    (12417, [ENTRY 1 True, REDUCE sym_function_type 6 0 152]),
    (12419, [ENTRY 1 True, REDUCE sym_function_type 6 0 153]),
    (12421, [ENTRY 1 True, REDUCE sym_result_convention 5 0 0]),
    (12423, [ENTRY 1 True, REDUCE sym_function_type 6 0 156]),
    (12425, [ENTRY 1 True, REDUCE sym_function_type 6 0 159]),
    (12427, [ENTRY 1 True, REDUCE sym_function_type 7 0 201]),
    (12429, [ENTRY 1 True, REDUCE sym_function_type 7 0 202]),
    (12431, [ENTRY 1 True, REDUCE sym_function_type 7 0 203]),
    (12433, [ENTRY 1 True, REDUCE sym_function_type 7 0 206]),
    (12435, [ENTRY 1 True, REDUCE sym_function_type 7 0 207]),
    (12437, [ENTRY 1 True, REDUCE sym_function_type 7 0 208]),
    (12439, [ENTRY 1 True, REDUCE sym_capture_list 4 0 0]),
    (12441, [ENTRY 1 True, REDUCE sym_function_type 7 0 210]),
    (12443, [ENTRY 1 True, REDUCE sym_function_type 7 0 211]),
    (12445, [ENTRY 1 True, REDUCE sym_function_type 7 0 214]),
    (12447, [ENTRY 1 True, REDUCE sym_function_type 8 0 269]),
    (12449, [ENTRY 1 True, REDUCE sym_function_type 8 0 270]),
    (12451, [ENTRY 1 True, REDUCE sym_function_type 8 0 271]),
    (12453, [ENTRY 1 True, REDUCE sym_function_type 8 0 272]),
    (12455, [ENTRY 1 True, REDUCE sym_function_type 8 0 274]),
    (12457, [ENTRY 1 True, REDUCE sym_function_type 8 0 275]),
    (12459, [ENTRY 1 True, REDUCE sym_function_type 8 0 276]),
    (12461, [ENTRY 1 True, REDUCE sym_function_type 8 0 277]),
    (12463, [ENTRY 1 True, REDUCE sym_function_type 8 0 278]),
    (12465, [ENTRY 1 True, REDUCE sym_function_type 8 0 279]),
    (12467, [ENTRY 1 True, REDUCE sym_function_type 8 0 280]),
    (12469, [ENTRY 1 True, REDUCE sym_function_type 8 0 281]),
    (12471, [ENTRY 1 True, REDUCE sym_function_type 8 0 284]),
    (12473, [ENTRY 1 True, REDUCE sym_function_type 8 0 285]),
    (12475, [ENTRY 1 True, REDUCE sym_function_type 8 0 286]),
    (12477, [ENTRY 1 True, REDUCE sym_function_type 9 0 346]),
    (12479, [ENTRY 1 True, REDUCE sym_function_type 9 0 347]),
    (12481, [ENTRY 1 True, REDUCE sym_function_type 9 0 348]),
    (12483, [ENTRY 1 True, REDUCE sym_function_type 9 0 349]),
    (12485, [ENTRY 1 True, REDUCE sym_function_type 9 0 350]),
    (12487, [ENTRY 1 True, REDUCE sym_function_type 9 0 351]),
    (12489, [ENTRY 1 True, REDUCE sym_function_type 9 0 352]),
    (12491, [ENTRY 1 True, REDUCE sym_function_type 9 0 353]),
    (12493, [ENTRY 1 True, REDUCE sym_function_type 9 0 354]),
    (12495, [ENTRY 1 True, REDUCE sym_function_type 9 0 355]),
    (12497, [ENTRY 1 True, REDUCE sym_function_type 9 0 356]),
    (12499, [ENTRY 1 True, REDUCE sym_function_type 9 0 357]),
    (12501, [ENTRY 1 True, REDUCE sym_function_type 9 0 358]),
    (12503, [ENTRY 1 True, REDUCE sym_function_type 9 0 359]),
    (12505, [ENTRY 1 True, REDUCE sym_function_type 9 0 360]),
    (12507, [ENTRY 1 True, REDUCE sym_function_type 9 0 362]),
    (12509, [ENTRY 1 True, REDUCE sym_function_type 9 0 363]),
    (12511, [ENTRY 1 True, REDUCE sym_function_type 9 0 364]),
    (12513, [ENTRY 1 True, REDUCE sym_function_type 9 0 365]),
    (12515, [ENTRY 1 True, REDUCE sym_function_type 9 0 366]),
    (12517, [ENTRY 1 True, REDUCE sym_function_type 10 0 434])]"

definition parse_actions_41 :: "(nat \<times> TSParseActionEntry list) list" where "parse_actions_41 = [
    (12519, [ENTRY 1 True, SHIFT 1524]), (12521, [ENTRY 1 True, SHIFT 2813]),
    (12523, [ENTRY 1 True, REDUCE sym_function_type 10 0 436]),
    (12525, [ENTRY 1 True, REDUCE sym_function_type 10 0 437]),
    (12527, [ENTRY 1 True, REDUCE sym_function_type 10 0 438]),
    (12529, [ENTRY 1 True, REDUCE sym_function_type 10 0 439]),
    (12531, [ENTRY 1 True, REDUCE sym_function_type 10 0 440]),
    (12533, [ENTRY 1 True, REDUCE sym_function_type 10 0 441]),
    (12535, [ENTRY 1 True, REDUCE sym_function_type 10 0 442]),
    (12537, [ENTRY 1 True, REDUCE sym_function_type 10 0 443]),
    (12539, [ENTRY 1 True, REDUCE sym_function_type 10 0 444]),
    (12541, [ENTRY 1 True, REDUCE sym_function_type 10 0 445]),
    (12543, [ENTRY 1 True, REDUCE sym_function_type 10 0 446]),
    (12545, [ENTRY 1 True, REDUCE sym_function_type 10 0 447]),
    (12547, [ENTRY 1 True, REDUCE sym_function_type 10 0 448]),
    (12549, [ENTRY 1 True, REDUCE sym_function_type 10 0 449]),
    (12551, [ENTRY 1 True, REDUCE sym_function_type 10 0 450]),
    (12553, [ENTRY 1 True, REDUCE sym_function_type 10 0 451]),
    (12555, [ENTRY 1 True, REDUCE sym_function_type 10 0 452]),
    (12557, [ENTRY 1 True, REDUCE sym_function_type 10 0 453]),
    (12559, [ENTRY 1 True, REDUCE sym_function_type 10 0 454]),
    (12561, [ENTRY 1 True, REDUCE sym_function_type 11 0 531]),
    (12563, [ENTRY 1 True, REDUCE sym_function_type 11 0 532]),
    (12565, [ENTRY 1 True, REDUCE sym_function_type 11 0 533]),
    (12567, [ENTRY 1 True, REDUCE sym_function_type 11 0 534]),
    (12569, [ENTRY 1 True, REDUCE sym_function_type 11 0 535]),
    (12571, [ENTRY 1 True, REDUCE sym_function_type 11 0 536]),
    (12573, [ENTRY 1 True, REDUCE sym_function_type 11 0 537]),
    (12575, [ENTRY 1 True, REDUCE sym_function_type 11 0 538]),
    (12577, [ENTRY 1 True, REDUCE sym_function_type 11 0 539]),
    (12579, [ENTRY 1 True, REDUCE sym_function_type 11 0 540]),
    (12581, [ENTRY 1 True, REDUCE sym_function_type 11 0 541]),
    (12583, [ENTRY 1 True, REDUCE sym_function_type 11 0 542]),
    (12585, [ENTRY 1 True, REDUCE sym_function_type 11 0 543]),
    (12587, [ENTRY 1 True, REDUCE sym_function_type 11 0 544]),
    (12589, [ENTRY 1 True, REDUCE sym_function_type 11 0 545]),
    (12591, [ENTRY 1 True, REDUCE sym_function_type 12 0 630]),
    (12593, [ENTRY 1 True, REDUCE sym_function_type 12 0 631]),
    (12595, [ENTRY 1 True, REDUCE sym_function_type 12 0 632]),
    (12597, [ENTRY 1 True, REDUCE sym_function_type 12 0 633]),
    (12599, [ENTRY 1 True, REDUCE sym_function_type 12 0 634]),
    (12601, [ENTRY 1 True, REDUCE sym_function_type 12 0 635]),
    (12603, [ENTRY 1 True, REDUCE sym_function_type 13 0 727]),
    (12605, [ENTRY 1 True, SHIFT 1577]), (12607, [ENTRY 1 True, SHIFT 2177]),
    (12609, [ENTRY 1 True, SHIFT 1739]), (12611, [ENTRY 1 True, SHIFT 2121]),
    (12613, [ENTRY 1 True, SHIFT 1809]), (12615, [ENTRY 1 True, SHIFT 2215]),
    (12617, [ENTRY 1 True, SHIFT 1813]), (12619, [ENTRY 1 True, SHIFT 2221]),
    (12621, [ENTRY 1 True, SHIFT 1712]), (12623, [ENTRY 1 True, SHIFT 2802]),
    (12625, [ENTRY 1 True, SHIFT 1727]), (12627, [ENTRY 1 True, SHIFT 2822]),
    (12629, [ENTRY 1 True, SHIFT 1336]), (12631, [ENTRY 1 True, SHIFT 2395]),
    (12633, [ENTRY 1 True, SHIFT 1733]), (12635, [ENTRY 1 True, SHIFT 2111]),
    (12637, [ENTRY 1 True, SHIFT 1731]), (12639, [ENTRY 1 True, SHIFT 2108]),
    (12641, [ENTRY 1 True, SHIFT 8845]), (12643, [ENTRY 1 True, SHIFT 1359]),
    (12645, [ENTRY 1 True, SHIFT 2736]), (12647, [ENTRY 1 True, SHIFT 1348]),
    (12649, [ENTRY 1 True, SHIFT 2422]), (12651, [ENTRY 1 True, SHIFT 8826]),
    (12653, [ENTRY 1 True, SHIFT 1442]), (12655, [ENTRY 1 True, SHIFT 2343]),
    (12657, [ENTRY 1 True, SHIFT 1439]), (12659, [ENTRY 1 True, SHIFT 2337]),
    (12661, [ENTRY 1 True, SHIFT 8689]),
    (12663, [ENTRY 2 True, REDUCE aux_sym_called_type_repeat1 2 0 0, SHIFT_REPEAT 12610]),
    (12666, [ENTRY 1 True, SHIFT 1812]), (12668, [ENTRY 1 True, SHIFT 2218]),
    (12670, [ENTRY 1 True, SHIFT 8640]), (12672, [ENTRY 1 True, SHIFT 1684]),
    (12674, [ENTRY 1 True, SHIFT 2823]), (12676, [ENTRY 1 True, SHIFT 8832]),
    (12678, [ENTRY 1 True, SHIFT 1320]), (12680, [ENTRY 1 True, SHIFT 2369]),
    (12682, [ENTRY 1 True, REDUCE sym_result_convention 6 0 0]),
    (12684, [ENTRY 1 True, REDUCE sym_capture_list 5 0 0]),
    (12686, [ENTRY 1 True, REDUCE sym_function_type 4 0 0]), (12688, [ENTRY 1 True, SHIFT 2564]),
    (12690, [ENTRY 1 True, REDUCE sym_function_type 5 0 75]), (12692, [ENTRY 1 True, SHIFT 2568]),
    (12694, [ENTRY 1 True, REDUCE sym_function_type 5 0 77]), (12696, [ENTRY 1 True, SHIFT 2573]),
    (12698, [ENTRY 1 True, REDUCE sym_function_type 6 0 115]), (12700, [ENTRY 1 True, SHIFT 2579]),
    (12702, [ENTRY 1 True, REDUCE sym_function_type 6 0 76]), (12704, [ENTRY 1 True, SHIFT 2580]),
    (12706, [ENTRY 1 True, SHIFT 2582]), (12708, [ENTRY 1 True, REDUCE sym_function_type 6 0 119]),
    (12710, [ENTRY 1 True, SHIFT 2585]), (12712, [ENTRY 1 True, REDUCE sym_function_type 7 0 154]),
    (12714, [ENTRY 1 True, SHIFT 2590]), (12716, [ENTRY 1 True, REDUCE sym_function_type 7 0 114]),
    (12718, [ENTRY 1 True, SHIFT 2591]), (12720, [ENTRY 1 True, SHIFT 2593]),
    (12722, [ENTRY 1 True, REDUCE sym_function_type 7 0 157]), (12724, [ENTRY 1 True, SHIFT 2596]),
    (12726, [ENTRY 1 True, REDUCE sym_function_type 7 0 158]), (12728, [ENTRY 1 True, SHIFT 2597]),
    (12730, [ENTRY 1 True, REDUCE sym_function_type 7 0 117]), (12732, [ENTRY 1 True, SHIFT 2598]),
    (12734, [ENTRY 1 True, REDUCE sym_function_type 7 0 161]), (12736, [ENTRY 1 True, SHIFT 2603]),
    (12738, [ENTRY 1 True, REDUCE sym_function_type 7 0 120]), (12740, [ENTRY 1 True, SHIFT 2604]),
    (12742, [ENTRY 1 True, SHIFT 2606]), (12744, [ENTRY 1 True, REDUCE sym_function_type 8 0 204]),
    (12746, [ENTRY 1 True, SHIFT 2609]), (12748, [ENTRY 1 True, REDUCE sym_function_type 8 0 205]),
    (12750, [ENTRY 1 True, SHIFT 2610]), (12752, [ENTRY 1 True, REDUCE sym_function_type 8 0 155]),
    (12754, [ENTRY 1 True, SHIFT 2611]), (12756, [ENTRY 1 True, REDUCE sym_function_type 8 0 209]),
    (12758, [ENTRY 1 True, SHIFT 2613]), (12760, [ENTRY 1 True, REDUCE sym_function_type 8 0 212]),
    (12762, [ENTRY 1 True, SHIFT 2614]), (12764, [ENTRY 1 True, REDUCE sym_function_type 8 0 160]),
    (12766, [ENTRY 1 True, SHIFT 2615]), (12768, [ENTRY 1 True, SHIFT 2617]),
    (12770, [ENTRY 1 True, REDUCE sym_function_type 8 0 215]), (12772, [ENTRY 1 True, SHIFT 2620]),
    (12774, [ENTRY 1 True, REDUCE sym_function_type 8 0 216]), (12776, [ENTRY 1 True, SHIFT 2621]),
    (12778, [ENTRY 1 True, REDUCE sym_function_type 8 0 162]), (12780, [ENTRY 1 True, SHIFT 2622]),
    (12782, [ENTRY 1 True, REDUCE sym_function_type 9 0 273]), (12784, [ENTRY 1 True, SHIFT 2624]),
    (12786, [ENTRY 1 True, REDUCE sym_function_type 9 0 282]), (12788, [ENTRY 1 True, SHIFT 2625]),
    (12790, [ENTRY 1 True, REDUCE sym_function_type 9 0 283]), (12792, [ENTRY 1 True, SHIFT 2626]),
    (12794, [ENTRY 1 True, REDUCE sym_function_type 9 0 213]), (12796, [ENTRY 1 True, SHIFT 2627]),
    (12798, [ENTRY 1 True, REDUCE sym_function_type 9 0 287]), (12800, [ENTRY 1 True, SHIFT 2629]),
    (12802, [ENTRY 1 True, REDUCE sym_function_type 10 0 361]),
    (12804, [ENTRY 1 True, SHIFT 2630]),
    (12806, [ENTRY 1 True, REDUCE sym_function_type 10 0 435]),
    (12808, [ENTRY 1 True, SHIFT 2689]), (12810, [ENTRY 1 True, SHIFT 12693]),
    (12812, [ENTRY 1 True, SHIFT 3312]), (12814, [ENTRY 1 True, SHIFT 3313]),
    (12816, [ENTRY 1 True, SHIFT 12640]), (12818, [ENTRY 1 True, SHIFT 3238])]"

definition parse_actions_42 :: "(nat \<times> TSParseActionEntry list) list" where "parse_actions_42 = [
    (12820, [ENTRY 1 True, SHIFT 3239]),
    (12822, [ENTRY 2 True, REDUCE sym_named_expression 3 0 19, SHIFT 4188]),
    (12825, [ENTRY 1 True, SHIFT 4255]), (12827, [ENTRY 1 True, SHIFT 4269]),
    (12829, [ENTRY 1 False, REDUCE sym_not_operator 2 0 6]), (12831, [ENTRY 1 True, SHIFT 3818]),
    (12833, [ENTRY 1 False, SHIFT 4110]), (12835, [ENTRY 1 True, SHIFT 4260]),
    (12837, [ENTRY 1 True, SHIFT 4153]), (12839, [ENTRY 1 True, SHIFT 12733]),
    (12841, [ENTRY 1 True, SHIFT 3992]),
    (12843, [ENTRY 2 True, REDUCE sym__collection_elements 1 0 0, SHIFT 7693]),
    (12846, [ENTRY 1 True, SHIFT 4116]), (12848, [ENTRY 1 True, SHIFT 4117]),
    (12850, [ENTRY 1 True, SHIFT 3770]),
    (12852, [ENTRY 2 True, REDUCE sym__collection_elements 1 0 0, SHIFT 7130]),
    (12855, [ENTRY 1 True, SHIFT 3761]),
    (12857, [ENTRY 2 True, REDUCE sym__collection_elements 1 0 0, SHIFT 7600]),
    (12860, [ENTRY 1 True, SHIFT 3796]),
    (12862, [ENTRY 2 True, REDUCE sym__collection_elements 1 0 0, SHIFT 7175]),
    (12865, [ENTRY 1 True, SHIFT 3780]),
    (12867, [ENTRY 2 True, REDUCE sym__collection_elements 1 0 0, SHIFT 7007]),
    (12870, [ENTRY 1 True, SHIFT 12698]), (12872, [ENTRY 1 True, SHIFT 3454]),
    (12874, [ENTRY 1 True, SHIFT 3455]), (12876, [ENTRY 1 True, SHIFT 3805]),
    (12878, [ENTRY 2 True, REDUCE sym__collection_elements 1 0 0, SHIFT 7425]),
    (12881, [ENTRY 1 True, SHIFT 3767]),
    (12883, [ENTRY 2 True, REDUCE sym__collection_elements 1 0 0, SHIFT 7746]),
    (12886, [ENTRY 1 True, SHIFT 2426]), (12888, [ENTRY 1 True, SHIFT 2430]),
    (12890, [ENTRY 1 True, SHIFT 4188]), (12892, [ENTRY 1 True, SHIFT 4200]),
    (12894, [ENTRY 1 True, SHIFT 2435]), (12896, [ENTRY 1 True, SHIFT 2441]),
    (12898, [ENTRY 1 True, SHIFT 2442]), (12900, [ENTRY 1 True, SHIFT 2444]),
    (12902, [ENTRY 1 True, SHIFT 2447]), (12904, [ENTRY 1 True, SHIFT 2452]),
    (12906, [ENTRY 1 True, SHIFT 2453]), (12908, [ENTRY 1 True, SHIFT 2455]),
    (12910, [ENTRY 1 True, SHIFT 2458]), (12912, [ENTRY 1 True, SHIFT 2459]),
    (12914, [ENTRY 1 True, SHIFT 2460]), (12916, [ENTRY 1 True, SHIFT 2465]),
    (12918, [ENTRY 1 True, SHIFT 2466]), (12920, [ENTRY 1 True, SHIFT 2468]),
    (12922, [ENTRY 1 True, SHIFT 2471]), (12924, [ENTRY 1 True, SHIFT 2472]),
    (12926, [ENTRY 1 True, SHIFT 2473]), (12928, [ENTRY 1 True, SHIFT 2475]),
    (12930, [ENTRY 1 True, SHIFT 2476]), (12932, [ENTRY 1 True, SHIFT 2477]),
    (12934, [ENTRY 1 True, SHIFT 2479]), (12936, [ENTRY 1 True, SHIFT 2482]),
    (12938, [ENTRY 1 True, SHIFT 2483]), (12940, [ENTRY 1 True, SHIFT 2484]),
    (12942, [ENTRY 1 True, SHIFT 2486]), (12944, [ENTRY 1 True, SHIFT 2487]),
    (12946, [ENTRY 1 True, SHIFT 2488]), (12948, [ENTRY 1 True, SHIFT 2489]),
    (12950, [ENTRY 1 True, SHIFT 2491]), (12952, [ENTRY 1 True, SHIFT 2492]),
    (12954, [ENTRY 1 True, SHIFT 2495]), (12956, [ENTRY 1 True, SHIFT 2499]),
    (12958, [ENTRY 1 True, SHIFT 2504]), (12960, [ENTRY 1 True, SHIFT 2510]),
    (12962, [ENTRY 1 True, SHIFT 2511]), (12964, [ENTRY 1 True, SHIFT 2513]),
    (12966, [ENTRY 1 True, SHIFT 2516]), (12968, [ENTRY 1 True, SHIFT 2521]),
    (12970, [ENTRY 1 True, SHIFT 2522]), (12972, [ENTRY 1 True, SHIFT 2524]),
    (12974, [ENTRY 1 True, SHIFT 2527]), (12976, [ENTRY 1 True, SHIFT 2528]),
    (12978, [ENTRY 1 True, SHIFT 2529]), (12980, [ENTRY 1 True, SHIFT 3813]),
    (12982, [ENTRY 2 True, REDUCE sym__collection_elements 1 0 0, SHIFT 7289]),
    (12985, [ENTRY 1 True, SHIFT 2534]), (12987, [ENTRY 1 True, SHIFT 2535]),
    (12989, [ENTRY 1 True, SHIFT 2537]), (12991, [ENTRY 1 True, SHIFT 2540]),
    (12993, [ENTRY 1 True, SHIFT 2541]), (12995, [ENTRY 1 True, SHIFT 2542]),
    (12997, [ENTRY 1 True, SHIFT 2544]), (12999, [ENTRY 1 True, SHIFT 2545]),
    (13001, [ENTRY 1 True, SHIFT 2546]), (13003, [ENTRY 1 True, SHIFT 2548]),
    (13005, [ENTRY 1 True, SHIFT 2551]), (13007, [ENTRY 1 True, SHIFT 2552]),
    (13009, [ENTRY 1 True, SHIFT 2553]), (13011, [ENTRY 1 True, SHIFT 2555]),
    (13013, [ENTRY 1 True, SHIFT 2556]), (13015, [ENTRY 1 True, SHIFT 2557]),
    (13017, [ENTRY 1 True, SHIFT 2558]), (13019, [ENTRY 1 True, SHIFT 2560]),
    (13021, [ENTRY 1 True, SHIFT 2561]),
    (13023, [ENTRY 2 False, REDUCE sym_named_expression 3 0 19, SHIFT 4102]),
    (13026, [ENTRY 1 False, REDUCE sym_as_pattern 3 0 23]),
    (13028, [ENTRY 1 False, REDUCE sym_boolean_operator 3 0 22]),
    (13030, [ENTRY 1 True, SHIFT 2633]), (13032, [ENTRY 1 True, SHIFT 2637]),
    (13034, [ENTRY 1 True, SHIFT 2642]), (13036, [ENTRY 1 True, SHIFT 2648]),
    (13038, [ENTRY 1 True, SHIFT 2649]), (13040, [ENTRY 1 True, SHIFT 2651]),
    (13042, [ENTRY 1 True, SHIFT 2654]), (13044, [ENTRY 1 True, SHIFT 2659]),
    (13046, [ENTRY 1 True, SHIFT 2660]), (13048, [ENTRY 1 True, SHIFT 2662]),
    (13050, [ENTRY 1 True, SHIFT 2665]), (13052, [ENTRY 1 True, SHIFT 2666]),
    (13054, [ENTRY 1 True, SHIFT 2667]), (13056, [ENTRY 1 True, SHIFT 2672]),
    (13058, [ENTRY 1 True, SHIFT 2673]), (13060, [ENTRY 1 True, SHIFT 2675]),
    (13062, [ENTRY 1 True, SHIFT 2678]), (13064, [ENTRY 1 True, SHIFT 2679]),
    (13066, [ENTRY 1 True, SHIFT 2680]), (13068, [ENTRY 1 True, SHIFT 2682]),
    (13070, [ENTRY 1 True, SHIFT 2683]), (13072, [ENTRY 1 True, SHIFT 2684]),
    (13074, [ENTRY 1 True, SHIFT 2686]), (13076, [ENTRY 1 True, SHIFT 2690]),
    (13078, [ENTRY 1 True, SHIFT 2691]), (13080, [ENTRY 1 True, SHIFT 2693]),
    (13082, [ENTRY 1 True, SHIFT 2694]), (13084, [ENTRY 1 True, SHIFT 2695]),
    (13086, [ENTRY 1 True, SHIFT 2696]), (13088, [ENTRY 1 True, SHIFT 2698]),
    (13090, [ENTRY 1 True, SHIFT 2699]), (13092, [ENTRY 1 True, SHIFT 1997]),
    (13094, [ENTRY 1 True, SHIFT 9630]), (13096, [ENTRY 1 True, SHIFT 9477]),
    (13098, [ENTRY 1 False, SHIFT 7181]), (13100, [ENTRY 1 True, SHIFT 11126]),
    (13102, [ENTRY 1 True, SHIFT 9503]), (13104, [ENTRY 1 False, SHIFT 7697]),
    (13106, [ENTRY 1 True, SHIFT 11091]), (13108, [ENTRY 1 True, SHIFT 9483]),
    (13110, [ENTRY 1 True, SHIFT 9460]), (13112, [ENTRY 1 True, SHIFT 9017]),
    (13114, [ENTRY 1 True, SHIFT 11818]), (13116, [ENTRY 1 True, SHIFT 11205]),
    (13118, [ENTRY 1 True, SHIFT 9485]), (13120, [ENTRY 1 True, SHIFT 8928]),
    (13122, [ENTRY 1 True, SHIFT 9032]), (13124, [ENTRY 1 False, SHIFT 7229]),
    (13126, [ENTRY 1 True, SHIFT 10943]), (13128, [ENTRY 1 True, SHIFT 9459])]"

definition parse_actions_43 :: "(nat \<times> TSParseActionEntry list) list" where "parse_actions_43 = [
    (13130, [ENTRY 1 False, SHIFT 7426]), (13132, [ENTRY 1 True, SHIFT 11059]),
    (13134, [ENTRY 1 True, SHIFT 9461]), (13136, [ENTRY 1 False, SHIFT 6791]),
    (13138, [ENTRY 1 True, SHIFT 10982]), (13140, [ENTRY 1 True, SHIFT 9452]),
    (13142, [ENTRY 1 True, SHIFT 9543]), (13144, [ENTRY 1 False, SHIFT 7794]),
    (13146, [ENTRY 1 True, SHIFT 10957]), (13148, [ENTRY 1 True, SHIFT 9052]),
    (13150, [ENTRY 1 True, SHIFT 9544]), (13152, [ENTRY 1 True, SHIFT 9126]),
    (13154, [ENTRY 1 True, SHIFT 9653]), (13156, [ENTRY 1 True, SHIFT 11576]),
    (13158, [ENTRY 1 True, SHIFT 10974]), (13160, [ENTRY 1 True, SHIFT 9062]),
    (13162, [ENTRY 1 True, SHIFT 1995]), (13164, [ENTRY 1 True, SHIFT 9497]),
    (13166, [ENTRY 1 True, SHIFT 8888]), (13168, [ENTRY 1 True, SHIFT 9002]),
    (13170, [ENTRY 1 False, SHIFT 6986]), (13172, [ENTRY 1 True, SHIFT 11167]),
    (13174, [ENTRY 1 True, SHIFT 9456]), (13176, [ENTRY 1 True, SHIFT 9453]),
    (13178, [ENTRY 1 True, SHIFT 9656]), (13180, [ENTRY 1 True, SHIFT 9270]),
    (13182, [ENTRY 1 True, SHIFT 9571]), (13184, [ENTRY 1 False, SHIFT 7590]),
    (13186, [ENTRY 1 True, SHIFT 11048]), (13188, [ENTRY 1 True, SHIFT 9468]),
    (13190, [ENTRY 1 True, SHIFT 9509]), (13192, [ENTRY 1 True, SHIFT 9512]),
    (13194, [ENTRY 1 True, SHIFT 9473]), (13196, [ENTRY 1 True, SHIFT 8701]),
    (13198, [ENTRY 1 True, SHIFT 9476]), (13200, [ENTRY 1 True, SHIFT 9514]),
    (13202, [ENTRY 1 False, SHIFT 7291]), (13204, [ENTRY 1 True, SHIFT 11129]),
    (13206, [ENTRY 1 True, SHIFT 9517]), (13208, [ENTRY 1 True, SHIFT 9518]),
    (13210, [ENTRY 1 True, SHIFT 9521]), (13212, [ENTRY 1 True, SHIFT 9524]),
    (13214, [ENTRY 1 True, SHIFT 9525]), (13216, [ENTRY 1 True, SHIFT 9528]),
    (13218, [ENTRY 1 True, SHIFT 9529]), (13220, [ENTRY 1 True, SHIFT 9534]),
    (13222, [ENTRY 1 True, SHIFT 9535]), (13224, [ENTRY 1 True, SHIFT 9537]),
    (13226, [ENTRY 1 True, SHIFT 9538]), (13228, [ENTRY 1 True, SHIFT 9496]),
    (13230, [ENTRY 1 True, SHIFT 9539]), (13232, [ENTRY 1 True, SHIFT 9541]),
    (13234, [ENTRY 1 True, SHIFT 9542]), (13236, [ENTRY 1 True, SHIFT 9527]),
    (13238, [ENTRY 1 True, SHIFT 9530]), (13240, [ENTRY 1 True, SHIFT 8846]),
    (13242, [ENTRY 1 True, SHIFT 8686]), (13244, [ENTRY 1 False, SHIFT 7477]),
    (13246, [ENTRY 1 True, SHIFT 11164]), (13248, [ENTRY 1 True, SHIFT 3840]),
    (13250, [ENTRY 1 True, REDUCE sym__collection_elements 1 0 0]),
    (13252, [ENTRY 1 True, SHIFT 3671]), (13254, [ENTRY 1 True, SHIFT 9766]),
    (13256, [ENTRY 1 False, SHIFT 9766]), (13258, [ENTRY 1 True, SHIFT 12532]),
    (13260, [ENTRY 1 True, SHIFT 4245]), (13262, [ENTRY 1 True, SHIFT 4168]),
    (13264, [ENTRY 1 True, SHIFT 4248]), (13266, [ENTRY 1 True, SHIFT 4252]),
    (13268, [ENTRY 1 True, SHIFT 7095]), (13270, [ENTRY 1 True, SHIFT 12479]),
    (13272, [ENTRY 1 True, SHIFT 7081]), (13274, [ENTRY 1 True, SHIFT 7066]),
    (13276, [ENTRY 1 True, SHIFT 3824]), (13278, [ENTRY 1 False, SHIFT 4075]),
    (13280, [ENTRY 1 True, SHIFT 4196]), (13282, [ENTRY 1 True, SHIFT 12575]),
    (13284, [ENTRY 1 True, SHIFT 3905]), (13286, [ENTRY 1 True, SHIFT 4076]),
    (13288, [ENTRY 1 True, SHIFT 4092]), (13290, [ENTRY 1 True, SHIFT 7284]),
    (13292, [ENTRY 1 True, SHIFT 7420]), (13294, [ENTRY 1 True, SHIFT 6758]),
    (13296, [ENTRY 1 True, SHIFT 7464]), (13298, [ENTRY 1 True, SHIFT 7092]),
    (13300, [ENTRY 1 True, SHIFT 3768]), (13302, [ENTRY 1 True, SHIFT 7547]),
    (13304, [ENTRY 1 True, SHIFT 7374]), (13306, [ENTRY 1 True, SHIFT 12085]),
    (13308, [ENTRY 1 True, SHIFT 4272]), (13310, [ENTRY 1 True, SHIFT 4134]),
    (13312, [ENTRY 1 True, SHIFT 4278]), (13314, [ENTRY 1 True, SHIFT 4129]),
    (13316, [ENTRY 2 True, REDUCE aux_sym__function_effects 2 0 74, SHIFT_REPEAT 1995]),
    (13319, [ENTRY 2 True, REDUCE aux_sym__function_effects 2 0 74, SHIFT_REPEAT 9571]),
    (13322, [ENTRY 1 True, SHIFT 7594]), (13324, [ENTRY 1 True, SHIFT 12107]),
    (13326, [ENTRY 1 True, SHIFT 7124]), (13328, [ENTRY 1 True, SHIFT 6970]),
    (13330, [ENTRY 1 True, SHIFT 3753]), (13332, [ENTRY 1 True, SHIFT 7686]),
    (13334, [ENTRY 1 True, SHIFT 6942]), (13336, [ENTRY 1 True, SHIFT 7078]),
    (13338, [ENTRY 2 True, REDUCE sym_with_item 1 1 7, SHIFT 3824]),
    (13341, [ENTRY 1 True, SHIFT 6976]), (13343, [ENTRY 1 True, SHIFT 3777]),
    (13345, [ENTRY 1 True, SHIFT 7194]), (13347, [ENTRY 1 True, SHIFT 3797]),
    (13349, [ENTRY 1 True, SHIFT 7635]), (13351, [ENTRY 1 True, SHIFT 3775]),
    (13353, [ENTRY 1 True, SHIFT 7082]), (13355, [ENTRY 1 True, SHIFT 7238]),
    (13357, [ENTRY 1 True, SHIFT 3814]), (13359, [ENTRY 1 True, SHIFT 7193]),
    (13361, [ENTRY 1 True, SHIFT 3815]),
    (13363, [ENTRY 2 True, REDUCE aux_sym__function_effects 2 0 74, SHIFT_REPEAT 1990]),
    (13366, [ENTRY 2 True, REDUCE aux_sym__function_effects 2 0 74, SHIFT_REPEAT 9596]),
    (13369, [ENTRY 2 True, REDUCE sym_named_expression 3 0 19, SHIFT 4272]),
    (13372, [ENTRY 1 True, SHIFT 7588]), (13374, [ENTRY 1 True, SHIFT 6943]),
    (13376, [ENTRY 1 True, SHIFT 7171]), (13378, [ENTRY 1 True, SHIFT 7567]),
    (13380, [ENTRY 1 True, SHIFT 3751]), (13382, [ENTRY 1 True, SHIFT 7096]),
    (13384, [ENTRY 1 True, SHIFT 7099]), (13386, [ENTRY 1 True, SHIFT 10748]),
    (13388, [ENTRY 1 True, SHIFT 10837]), (13390, [ENTRY 1 True, SHIFT 9728]),
    (13392, [ENTRY 1 True, SHIFT 12432]), (13394, [ENTRY 1 True, SHIFT 6762]),
    (13396, [ENTRY 2 True, REDUCE sym_named_expression 3 0 19, SHIFT 4245]),
    (13399, [ENTRY 1 True, SHIFT 5392]), (13401, [ENTRY 1 True, SHIFT 3801]),
    (13403, [ENTRY 1 True, SHIFT 7581]), (13405, [ENTRY 1 True, SHIFT 7542]),
    (13407, [ENTRY 1 True, SHIFT 7528]), (13409, [ENTRY 1 True, SHIFT 4235]),
    (13411, [ENTRY 1 True, SHIFT 4163]), (13413, [ENTRY 1 True, SHIFT 4237]),
    (13415, [ENTRY 1 True, SHIFT 4238]),
    (13417, [ENTRY 2 True, REDUCE sym_named_expression 3 0 19, SHIFT 4235]),
    (13420, [ENTRY 1 True, SHIFT 7712]), (13422, [ENTRY 1 True, SHIFT 7532]),
    (13424, [ENTRY 1 True, REDUCE sym_expression_statement 1 0 0]),
    (13426, [ENTRY 1 True, SHIFT 3962]),
    (13428, [ENTRY 2 True, REDUCE aux_sym_string_repeat1 2 0 0, SHIFT_REPEAT 3671]),
    (13431, [ENTRY 2 True, REDUCE aux_sym_string_repeat1 2 0 0, SHIFT_REPEAT 9766]),
    (13434, [ENTRY 2 False, REDUCE aux_sym_string_repeat1 2 0 0, SHIFT_REPEAT 9766]),
    (13437, [ENTRY 1 True, REDUCE aux_sym_string_repeat1 2 0 0]),
    (13439, [ENTRY 2 True, REDUCE aux_sym__function_effects 2 0 74, SHIFT_REPEAT 1997])]"

definition parse_actions_44 :: "(nat \<times> TSParseActionEntry list) list" where "parse_actions_44 = [
    (13442, [ENTRY 2 True, REDUCE aux_sym__function_effects 2 0 74, SHIFT_REPEAT 9630]),
    (13445, [ENTRY 1 True, SHIFT 12596]), (13447, [ENTRY 1 True, SHIFT 3771]),
    (13449, [ENTRY 1 True, SHIFT 4247]), (13451, [ENTRY 1 True, SHIFT 2054]),
    (13453, [ENTRY 1 True, SHIFT 2941]), (13455, [ENTRY 1 True, SHIFT 8245]),
    (13457, [ENTRY 1 True, SHIFT 4039]), (13459, [ENTRY 1 True, SHIFT 2942]),
    (13461, [ENTRY 1 True, SHIFT 4159]), (13463, [ENTRY 1 True, SHIFT 2047]),
    (13465, [ENTRY 1 True, SHIFT 8539]), (13467, [ENTRY 1 True, SHIFT 4053]),
    (13469, [ENTRY 1 True, REDUCE sym_parameters 2 0 0]), (13471, [ENTRY 1 True, SHIFT 2040]),
    (13473, [ENTRY 1 True, SHIFT 8558]), (13475, [ENTRY 1 True, SHIFT 4025]),
    (13477, [ENTRY 1 True, SHIFT 2086]), (13479, [ENTRY 1 True, SHIFT 8519]),
    (13481, [ENTRY 1 True, SHIFT 4043]), (13483, [ENTRY 1 True, REDUCE sym_parameters 3 0 0]),
    (13485, [ENTRY 1 True, SHIFT 3845]), (13487, [ENTRY 1 True, SHIFT 4165]),
    (13489, [ENTRY 1 True, REDUCE sym_yield 2 0 0]), (13491, [ENTRY 1 True, SHIFT 4158]),
    (13493, [ENTRY 1 True, SHIFT 4166]), (13495, [ENTRY 1 True, SHIFT 4183]),
    (13497, [ENTRY 1 True, REDUCE sym__f_expression 1 0 0]),
    (13499, [ENTRY 2 False, REDUCE sym_named_expression 3 0 19, SHIFT 4110]),
    (13502, [ENTRY 1 True, REDUCE sym_raise_statement 2 0 0]), (13504, [ENTRY 1 True, SHIFT 4244]),
    (13506, [ENTRY 1 True, SHIFT 3884]), (13508, [ENTRY 1 True, SHIFT 3229]),
    (13510, [ENTRY 1 True, SHIFT 3896]), (13512, [ENTRY 1 True, SHIFT 7432]),
    (13514, [ENTRY 1 True, SHIFT 3213]), (13516, [ENTRY 1 True, SHIFT 6969]),
    (13518, [ENTRY 1 True, SHIFT 12636]), (13520, [ENTRY 1 True, REDUCE sym_dotted_name 1 0 0]),
    (13522, [ENTRY 1 True, SHIFT 7938]), (13524, [ENTRY 1 True, REDUCE sym_unified_clause 7 0 0]),
    (13526, [ENTRY 1 True, REDUCE sym__import_list 2 0 3]),
    (13528, [ENTRY 1 True, REDUCE aux_sym_assert_statement_repeat1 2 0 0]),
    (13530, [ENTRY 1 True, REDUCE sym_unified_clause 6 0 0]), (13532, [ENTRY 1 True, SHIFT 3236]),
    (13534, [ENTRY 1 True, SHIFT 7798]), (13536, [ENTRY 1 True, REDUCE sym_unified_clause 5 0 0]),
    (13538, [ENTRY 1 True, REDUCE sym_list_splat 2 0 0]), (13540, [ENTRY 1 True, SHIFT 9726]),
    (13542, [ENTRY 1 True, SHIFT 3233]), (13544, [ENTRY 1 True, SHIFT 7197]),
    (13546, [ENTRY 1 True, REDUCE aux_sym_superclass_list_repeat1 2 0 0]),
    (13548, [ENTRY 1 True, REDUCE sym__import_list 3 0 13]), (13550, [ENTRY 1 True, SHIFT 3227]),
    (13552, [ENTRY 1 True, SHIFT 7487]), (13554, [ENTRY 1 True, SHIFT 3231]),
    (13556, [ENTRY 1 True, SHIFT 7638]), (13558, [ENTRY 1 True, REDUCE sym_yield 3 0 0]),
    (13560, [ENTRY 1 True, SHIFT 3222]), (13562, [ENTRY 1 True, SHIFT 7168]),
    (13564, [ENTRY 1 True, REDUCE sym_dotted_name 2 0 0]), (13566, [ENTRY 1 True, SHIFT 3102]),
    (13568, [ENTRY 1 True, SHIFT 7609]), (13570, [ENTRY 1 True, SHIFT 3235]),
    (13572, [ENTRY 1 True, SHIFT 7241]), (13574, [ENTRY 1 True, SHIFT 3201]),
    (13576, [ENTRY 1 True, SHIFT 6788]),
    (13578, [ENTRY 1 True, REDUCE aux_sym_type_parameter_repeat1 2 0 0]),
    (13580, [ENTRY 1 True, SHIFT 4017]),
    (13582, [ENTRY 2 True, REDUCE sym_named_expression 3 0 19, SHIFT 4165]),
    (13585, [ENTRY 1 True, REDUCE aux_sym_dotted_name_repeat1 2 0 0]),
    (13587, [ENTRY 2 True, REDUCE aux_sym_dotted_name_repeat1 2 0 0, SHIFT_REPEAT 12636]),
    (13590, [ENTRY 1 True, SHIFT 2409]), (13592, [ENTRY 1 True, SHIFT 2711]),
    (13594, [ENTRY 1 True, SHIFT 12723]), (13596, [ENTRY 1 True, SHIFT 12544]),
    (13598, [ENTRY 1 True, SHIFT 7927]), (13600, [ENTRY 1 True, SHIFT 10052]),
    (13602, [ENTRY 1 True, SHIFT 11122]), (13604, [ENTRY 1 True, SHIFT 2372]),
    (13606, [ENTRY 1 True, REDUCE sym__expression_within_for_in_clause 1 0 0]),
    (13608, [ENTRY 1 True, SHIFT 2377]),
    (13610, [ENTRY 1 True, REDUCE sym_return_statement 2 0 0]),
    (13612, [ENTRY 1 True, SHIFT 2383]), (13614, [ENTRY 1 True, SHIFT 2385]),
    (13616, [ENTRY 1 True, REDUCE sym_delete_statement 2 0 0]),
    (13618, [ENTRY 1 True, SHIFT 2706]), (13620, [ENTRY 1 True, SHIFT 2338]),
    (13622, [ENTRY 1 True, SHIFT 2341]), (13624, [ENTRY 1 True, SHIFT 2345]),
    (13626, [ENTRY 1 True, SHIFT 12658]), (13628, [ENTRY 1 True, SHIFT 7926]),
    (13630, [ENTRY 1 True, SHIFT 12673]), (13632, [ENTRY 1 True, SHIFT 2351]),
    (13634, [ENTRY 1 True, SHIFT 2804]), (13636, [ENTRY 1 True, SHIFT 2388]),
    (13638, [ENTRY 1 True, REDUCE sym_pair 3 0 51]), (13640, [ENTRY 1 True, SHIFT 2361]),
    (13642, [ENTRY 1 True, SHIFT 12467]), (13644, [ENTRY 1 True, SHIFT 7940]),
    (13646, [ENTRY 1 True, SHIFT 2707]), (13648, [ENTRY 1 True, SHIFT 2396]),
    (13650, [ENTRY 1 True, REDUCE sym_exec_statement 4 0 8]), (13652, [ENTRY 1 True, SHIFT 4194]),
    (13654, [ENTRY 1 True, REDUCE sym_assert_statement 3 0 0]),
    (13656, [ENTRY 1 True, SHIFT 2399]), (13658, [ENTRY 1 True, SHIFT 2402]),
    (13660, [ENTRY 1 True, SHIFT 2366]),
    (13662, [ENTRY 2 False, REDUCE sym_named_expression 3 0 19, SHIFT 4075]),
    (13665, [ENTRY 1 True, REDUCE sym_tuple_expression 3 0 0]),
    (13667, [ENTRY 1 True, SHIFT 3961]),
    (13669, [ENTRY 1 True, REDUCE sym_print_statement 2 (- 1) 6]),
    (13671, [ENTRY 1 True, SHIFT 3918]), (13673, [ENTRY 1 True, SHIFT 2321]),
    (13675, [ENTRY 1 True, SHIFT 2562]), (13677, [ENTRY 1 True, SHIFT 2407]),
    (13679, [ENTRY 1 True, REDUCE sym_assert_statement 2 0 0]),
    (13681, [ENTRY 1 True, SHIFT 2631]), (13683, [ENTRY 1 True, SHIFT 2371]),
    (13685, [ENTRY 1 True, SHIFT 2700]), (13687, [ENTRY 1 True, SHIFT 2410]),
    (13689, [ENTRY 1 True, SHIFT 2413]), (13691, [ENTRY 1 True, SHIFT 2416]),
    (13693, [ENTRY 1 True, SHIFT 2417]), (13695, [ENTRY 1 True, SHIFT 2418]),
    (13697, [ENTRY 1 True, REDUCE sym_string_content 1 0 0]), (13699, [ENTRY 1 True, SHIFT 9769]),
    (13701, [ENTRY 1 False, SHIFT 9769]),
    (13703, [ENTRY 1 True, REDUCE sym__simple_pattern 1 0 0]), (13705, [ENTRY 1 True, SHIFT 2493]),
    (13707, [ENTRY 1 True, REDUCE aux_sym_string_content_repeat1 2 0 0]),
    (13709, [ENTRY 2 True, REDUCE aux_sym_string_content_repeat1 2 0 0, SHIFT_REPEAT 9769]),
    (13712, [ENTRY 2 False, REDUCE aux_sym_string_content_repeat1 2 0 0, SHIFT_REPEAT 9769]),
    (13715, [ENTRY 1 True, SHIFT 2362]), (13717, [ENTRY 1 True, SHIFT 2323]),
    (13719, [ENTRY 1 True, SHIFT 3864]), (13721, [ENTRY 1 True, SHIFT 6999]),
    (13723, [ENTRY 1 True, SHIFT 2269]), (13725, [ENTRY 1 True, SHIFT 2179]),
    (13727, [ENTRY 1 True, SHIFT 3880]), (13729, [ENTRY 1 True, SHIFT 7129]),
    (13731, [ENTRY 1 True, SHIFT 2798]), (13733, [ENTRY 1 True, SHIFT 4246]),
    (13735, [ENTRY 1 True, REDUCE sym__comprehension_clauses 1 0 0]),
    (13737, [ENTRY 1 True, SHIFT 4054]), (13739, [ENTRY 1 True, SHIFT 7141]),
    (13741, [ENTRY 1 True, SHIFT 2324]), (13743, [ENTRY 1 True, SHIFT 2325]),
    (13745, [ENTRY 1 True, SHIFT 2326]), (13747, [ENTRY 1 True, SHIFT 2278])]"

definition parse_actions_45 :: "(nat \<times> TSParseActionEntry list) list" where "parse_actions_45 = [
    (13749, [ENTRY 1 True, SHIFT 4077]), (13751, [ENTRY 1 True, SHIFT 4051]),
    (13753, [ENTRY 1 True, SHIFT 7711]), (13755, [ENTRY 1 True, SHIFT 2183]),
    (13757, [ENTRY 1 True, SHIFT 2155]), (13759, [ENTRY 1 True, SHIFT 2280]),
    (13761, [ENTRY 1 True, SHIFT 2173]), (13763, [ENTRY 1 True, REDUCE sym_where_clause 2 0 0]),
    (13765, [ENTRY 1 True, SHIFT 2303]), (13767, [ENTRY 1 True, SHIFT 2094]),
    (13769, [ENTRY 1 True, SHIFT 8521]), (13771, [ENTRY 1 True, SHIFT 4044]),
    (13773, [ENTRY 1 True, SHIFT 2174]), (13775, [ENTRY 1 True, SHIFT 2150]),
    (13777, [ENTRY 1 True, REDUCE sym_keyword_argument 3 0 19]),
    (13779, [ENTRY 1 True, SHIFT 2226]), (13781, [ENTRY 1 True, SHIFT 2175]),
    (13783, [ENTRY 1 True, SHIFT 2212]), (13785, [ENTRY 1 True, SHIFT 2390]),
    (13787, [ENTRY 1 True, SHIFT 2265]), (13789, [ENTRY 1 True, SHIFT 3938]),
    (13791, [ENTRY 1 True, SHIFT 3873]), (13793, [ENTRY 1 True, SHIFT 7174]),
    (13795, [ENTRY 1 True, SHIFT 4007]), (13797, [ENTRY 1 True, SHIFT 11578]),
    (13799, [ENTRY 1 True, SHIFT 3898]), (13801, [ENTRY 1 True, SHIFT 9054]),
    (13803, [ENTRY 1 True, SHIFT 4149]), (13805, [ENTRY 1 True, SHIFT 2328]),
    (13807, [ENTRY 1 True, SHIFT 2304]), (13809, [ENTRY 1 True, SHIFT 2185]),
    (13811, [ENTRY 1 True, SHIFT 2306]), (13813, [ENTRY 1 True, SHIFT 2296]),
    (13815, [ENTRY 1 True, SHIFT 2816]), (13817, [ENTRY 1 True, SHIFT 3998]),
    (13819, [ENTRY 1 True, SHIFT 7192]), (13821, [ENTRY 1 True, SHIFT 2287]),
    (13823, [ENTRY 1 True, SHIFT 2297]), (13825, [ENTRY 1 True, SHIFT 2056]),
    (13827, [ENTRY 1 True, SHIFT 8513]), (13829, [ENTRY 1 True, SHIFT 4021]),
    (13831, [ENTRY 1 True, SHIFT 2284]), (13833, [ENTRY 1 True, SHIFT 2156]),
    (13835, [ENTRY 1 True, SHIFT 11271]), (13837, [ENTRY 1 False, SHIFT 12635]),
    (13839, [ENTRY 1 True, SHIFT 2330]),
    (13841, [ENTRY 1 True, REDUCE sym_dictionary_splat 2 0 0]),
    (13843, [ENTRY 1 True, SHIFT 2309]), (13845, [ENTRY 1 True, SHIFT 12316]),
    (13847, [ENTRY 1 True, SHIFT 2202]), (13849, [ENTRY 1 True, SHIFT 2189]),
    (13851, [ENTRY 1 True, SHIFT 2194]), (13853, [ENTRY 1 True, REDUCE sym_chevron 2 0 0]),
    (13855, [ENTRY 1 True, SHIFT 2311]), (13857, [ENTRY 1 True, SHIFT 2312]),
    (13859, [ENTRY 1 True, REDUCE sym_keyword_argument 3 0 50]),
    (13861, [ENTRY 1 True, SHIFT 2214]), (13863, [ENTRY 1 True, SHIFT 2219]),
    (13865, [ENTRY 1 True, REDUCE sym__simple_pattern 2 0 0]),
    (13867, [ENTRY 1 True, SHIFT 12455]), (13869, [ENTRY 1 True, SHIFT 2315]),
    (13871, [ENTRY 1 True, SHIFT 4032]), (13873, [ENTRY 1 True, SHIFT 1788]),
    (13875, [ENTRY 1 True, SHIFT 2200]), (13877, [ENTRY 1 True, SHIFT 2157]),
    (13879, [ENTRY 1 True, SHIFT 3897]), (13881, [ENTRY 1 True, SHIFT 9312]),
    (13883, [ENTRY 1 True, SHIFT 2147]), (13885, [ENTRY 1 True, SHIFT 3997]),
    (13887, [ENTRY 1 True, SHIFT 7936]), (13889, [ENTRY 1 True, SHIFT 2230]),
    (13891, [ENTRY 1 True, SHIFT 2272]), (13893, [ENTRY 1 True, SHIFT 4020]),
    (13895, [ENTRY 1 True, SHIFT 12034]), (13897, [ENTRY 1 True, SHIFT 2153]),
    (13899, [ENTRY 1 True, SHIFT 2299]), (13901, [ENTRY 1 True, SHIFT 2031]),
    (13903, [ENTRY 1 True, SHIFT 8546]), (13905, [ENTRY 1 True, SHIFT 4029]),
    (13907, [ENTRY 1 True, REDUCE sym__type_parameter_default 1 0 0]),
    (13909, [ENTRY 1 True, SHIFT 2318]), (13911, [ENTRY 1 True, SHIFT 1403]),
    (13913, [ENTRY 1 True, SHIFT 2289]), (13915, [ENTRY 1 True, SHIFT 2223]),
    (13917, [ENTRY 1 True, SHIFT 2319]), (13919, [ENTRY 1 True, SHIFT 2320]),
    (13921, [ENTRY 2 True, REDUCE aux_sym_dotted_name_repeat1 2 0 0, SHIFT_REPEAT 12658]),
    (13924, [ENTRY 1 True, SHIFT 2120]), (13926, [ENTRY 1 True, SHIFT 2238]),
    (13928, [ENTRY 1 True, SHIFT 2122]), (13930, [ENTRY 1 True, SHIFT 2228]),
    (13932, [ENTRY 1 True, SHIFT 2290]), (13934, [ENTRY 1 True, SHIFT 3867]),
    (13936, [ENTRY 1 True, SHIFT 7288]), (13938, [ENTRY 1 True, SHIFT 2127]),
    (13940, [ENTRY 1 True, SHIFT 2232]), (13942, [ENTRY 1 True, SHIFT 2239]),
    (13944, [ENTRY 1 True, SHIFT 2283]), (13946, [ENTRY 1 True, SHIFT 4065]),
    (13948, [ENTRY 1 True, SHIFT 7010]),
    (13950, [ENTRY 1 True, REDUCE sym__comprehension_clauses 2 0 0]),
    (13952, [ENTRY 1 True, SHIFT 4058]), (13954, [ENTRY 1 True, SHIFT 7555]),
    (13956, [ENTRY 1 True, SHIFT 2229]), (13958, [ENTRY 1 True, SHIFT 2134]),
    (13960, [ENTRY 1 True, REDUCE aux_sym_print_statement_repeat1 2 0 6]),
    (13962, [ENTRY 1 True, SHIFT 2241]), (13964, [ENTRY 1 True, SHIFT 2227]),
    (13966, [ENTRY 1 True, SHIFT 3660]), (13968, [ENTRY 1 True, SHIFT 2180]),
    (13970, [ENTRY 1 True, SHIFT 2242]), (13972, [ENTRY 1 True, SHIFT 2245]),
    (13974, [ENTRY 1 True, SHIFT 2110]),
    (13976, [ENTRY 2 True, REDUCE aux_sym_dotted_name_repeat1 2 0 0, SHIFT_REPEAT 12467]),
    (13979, [ENTRY 1 True, SHIFT 2195]), (13981, [ENTRY 1 True, SHIFT 4011]),
    (13983, [ENTRY 1 True, SHIFT 11852]), (13985, [ENTRY 1 True, REDUCE sym_if_clause 2 0 0]),
    (13987, [ENTRY 1 True, SHIFT 2196]), (13989, [ENTRY 1 True, SHIFT 3874]),
    (13991, [ENTRY 1 True, SHIFT 7599]), (13993, [ENTRY 1 True, SHIFT 2203]),
    (13995, [ENTRY 2 True, REDUCE aux_sym_dotted_name_repeat1 2 0 0, SHIFT_REPEAT 12544]),
    (13998, [ENTRY 2 True, REDUCE aux_sym__comprehension_clauses_repeat1 2 0 0, SHIFT_REPEAT 4149]),
    (14001, [ENTRY 2 True, REDUCE aux_sym__comprehension_clauses_repeat1 2 0 0, SHIFT_REPEAT 12694]),
    (14004, [ENTRY 2 True, REDUCE aux_sym__comprehension_clauses_repeat1 2 0 0, SHIFT_REPEAT 3976]),
    (14007, [ENTRY 1 True, REDUCE aux_sym__comprehension_clauses_repeat1 2 0 0]),
    (14009, [ENTRY 1 True, SHIFT 3866]), (14011, [ENTRY 1 True, SHIFT 7692]),
    (14013, [ENTRY 1 True, SHIFT 3876]), (14015, [ENTRY 1 True, SHIFT 7744]),
    (14017, [ENTRY 1 True, SHIFT 2807]), (14019, [ENTRY 1 True, SHIFT 4057]),
    (14021, [ENTRY 1 True, SHIFT 7164]), (14023, [ENTRY 1 True, SHIFT 2205]),
    (14025, [ENTRY 1 True, SHIFT 4003]), (14027, [ENTRY 1 True, SHIFT 7625]),
    (14029, [ENTRY 2 True, REDUCE aux_sym__comprehension_clauses_repeat1 2 0 0, SHIFT_REPEAT 4077]),
    (14032, [ENTRY 2 True, REDUCE aux_sym__comprehension_clauses_repeat1 2 0 0, SHIFT_REPEAT 12575]),
    (14035, [ENTRY 2 True, REDUCE aux_sym__comprehension_clauses_repeat1 2 0 0, SHIFT_REPEAT 3905]),
    (14038, [ENTRY 1 True, SHIFT 4059]), (14040, [ENTRY 1 True, SHIFT 7881]),
    (14042, [ENTRY 1 True, SHIFT 2151]),
    (14044, [ENTRY 2 True, REDUCE aux_sym_parameter_list_repeat1 2 0 0, REDUCE aux_sym_subscript_repeat1 2 0 85]),
    (14047, [ENTRY 2 True, REDUCE aux_sym__comprehension_clauses_repeat1 2 0 0, SHIFT_REPEAT 4246]),
    (14050, [ENTRY 2 True, REDUCE aux_sym__comprehension_clauses_repeat1 2 0 0, SHIFT_REPEAT 12733]),
    (14053, [ENTRY 2 True, REDUCE aux_sym__comprehension_clauses_repeat1 2 0 0, SHIFT_REPEAT 3992]),
    (14056, [ENTRY 1 True, SHIFT 1235]), (14058, [ENTRY 1 True, SHIFT 2206]),
    (14060, [ENTRY 1 True, SHIFT 2164])]"

definition parse_actions_46 :: "(nat \<times> TSParseActionEntry list) list" where "parse_actions_46 = [
    (14062, [ENTRY 1 True, SHIFT 2251]), (14064, [ENTRY 1 True, SHIFT 2165]),
    (14066, [ENTRY 1 True, SHIFT 2231]), (14068, [ENTRY 1 True, SHIFT 3935]),
    (14070, [ENTRY 1 True, SHIFT 2247]), (14072, [ENTRY 1 True, SHIFT 3888]),
    (14074, [ENTRY 1 True, SHIFT 9065]), (14076, [ENTRY 1 True, SHIFT 2199]),
    (14078, [ENTRY 1 True, REDUCE aux_sym_subscript_repeat1 2 0 85]),
    (14080, [ENTRY 1 True, SHIFT 2398]), (14082, [ENTRY 1 True, SHIFT 3939]),
    (14084, [ENTRY 1 True, SHIFT 2389]), (14086, [ENTRY 1 True, SHIFT 1244]),
    (14088, [ENTRY 1 True, SHIFT 2141]), (14090, [ENTRY 1 True, SHIFT 2252]),
    (14092, [ENTRY 1 True, SHIFT 2101]), (14094, [ENTRY 1 True, SHIFT 8329]),
    (14096, [ENTRY 1 True, SHIFT 4041]), (14098, [ENTRY 1 True, SHIFT 2167]),
    (14100, [ENTRY 1 True, SHIFT 2143]), (14102, [ENTRY 1 True, SHIFT 2260]),
    (14104, [ENTRY 1 True, SHIFT 2268]), (14106, [ENTRY 1 True, SHIFT 3857]),
    (14108, [ENTRY 1 True, SHIFT 7468]), (14110, [ENTRY 1 True, SHIFT 1665]),
    (14112, [ENTRY 1 True, SHIFT 2145]), (14114, [ENTRY 1 True, SHIFT 3892]),
    (14116, [ENTRY 1 True, SHIFT 8687]), (14118, [ENTRY 1 True, SHIFT 4064]),
    (14120, [ENTRY 1 True, SHIFT 12162]), (14122, [ENTRY 1 True, SHIFT 1263]),
    (14124, [ENTRY 1 True, SHIFT 2258]), (14126, [ENTRY 1 True, SHIFT 4047]),
    (14128, [ENTRY 1 True, SHIFT 7450]), (14130, [ENTRY 1 True, SHIFT 2168]),
    (14132, [ENTRY 1 True, SHIFT 2279]), (14134, [ENTRY 1 True, SHIFT 2149]),
    (14136, [ENTRY 1 True, SHIFT 2266]), (14138, [ENTRY 1 True, SHIFT 2840]),
    (14140, [ENTRY 1 True, SHIFT 2841]), (14142, [ENTRY 1 True, SHIFT 3136]),
    (14144, [ENTRY 1 True, SHIFT 3139]), (14146, [ENTRY 1 True, REDUCE sym_for_in_clause 7 0 217]),
    (14148, [ENTRY 1 True, SHIFT 3835]), (14150, [ENTRY 1 True, SHIFT 1099]),
    (14152, [ENTRY 1 True, SHIFT 8239]), (14154, [ENTRY 1 True, SHIFT 1940]),
    (14156, [ENTRY 1 True, SHIFT 3018]), (14158, [ENTRY 1 True, SHIFT 3019]),
    (14160, [ENTRY 1 True, SHIFT 1112]), (14162, [ENTRY 1 True, SHIFT 8257]),
    (14164, [ENTRY 1 True, SHIFT 1941]), (14166, [ENTRY 1 True, SHIFT 8262]),
    (14168, [ENTRY 1 True, SHIFT 1943]), (14170, [ENTRY 1 True, SHIFT 1011]),
    (14172, [ENTRY 1 True, SHIFT 1115]), (14174, [ENTRY 1 True, SHIFT 8276]),
    (14176, [ENTRY 1 True, SHIFT 1945]), (14178, [ENTRY 1 True, SHIFT 986]),
    (14180, [ENTRY 1 True, SHIFT 1122]),
    (14182, [ENTRY 1 True, REDUCE sym_typed_default_parameter 6 0 164]),
    (14184, [ENTRY 1 True, SHIFT 3844]), (14186, [ENTRY 1 True, REDUCE sym_for_in_clause 6 0 165]),
    (14188, [ENTRY 1 True, SHIFT 3851]), (14190, [ENTRY 1 True, REDUCE sym_for_in_clause 6 0 166]),
    (14192, [ENTRY 2 True, REDUCE aux_sym_for_in_clause_repeat1 2 0 0, SHIFT_REPEAT 3932]),
    (14195, [ENTRY 1 True, REDUCE aux_sym_for_in_clause_repeat1 2 0 0]),
    (14197, [ENTRY 1 True, SHIFT 1130]), (14199, [ENTRY 1 True, SHIFT 936]),
    (14201, [ENTRY 1 True, SHIFT 1136]), (14203, [ENTRY 1 True, SHIFT 1140]),
    (14205, [ENTRY 2 True, REDUCE aux_sym__patterns_repeat1 2 0 0, SHIFT_REPEAT 6754]),
    (14208, [ENTRY 1 True, SHIFT 8357]), (14210, [ENTRY 1 True, SHIFT 1895]),
    (14212, [ENTRY 1 True, SHIFT 1058]), (14214, [ENTRY 1 True, SHIFT 1018]),
    (14216, [ENTRY 1 True, SHIFT 1026]), (14218, [ENTRY 1 True, SHIFT 1001]),
    (14220, [ENTRY 1 True, SHIFT 8319]), (14222, [ENTRY 1 True, SHIFT 1897]),
    (14224, [ENTRY 1 False, SHIFT 12016]), (14226, [ENTRY 1 False, SHIFT 12424]),
    (14228, [ENTRY 1 True, SHIFT 1027]), (14230, [ENTRY 1 True, SHIFT 8324]),
    (14232, [ENTRY 1 True, SHIFT 1907]), (14234, [ENTRY 1 True, SHIFT 1013]),
    (14236, [ENTRY 1 True, SHIFT 1030]), (14238, [ENTRY 1 True, SHIFT 1024]),
    (14240, [ENTRY 1 True, REDUCE sym_with_item 1 1 7]), (14242, [ENTRY 1 True, SHIFT 3809]),
    (14244, [ENTRY 1 True, SHIFT 1028]), (14246, [ENTRY 1 True, SHIFT 1045]),
    (14248, [ENTRY 1 True, SHIFT 4187]), (14250, [ENTRY 1 True, SHIFT 4122]),
    (14252, [ENTRY 1 True, SHIFT 1249]), (14254, [ENTRY 1 True, SHIFT 1125]),
    (14256, [ENTRY 1 True, SHIFT 6720]), (14258, [ENTRY 1 True, SHIFT 3760]),
    (14260, [ENTRY 1 True, SHIFT 1039]), (14262, [ENTRY 1 True, SHIFT 1132]),
    (14264, [ENTRY 1 True, SHIFT 1139]), (14266, [ENTRY 1 True, SHIFT 1143]),
    (14268, [ENTRY 1 True, SHIFT 1154]), (14270, [ENTRY 1 True, SHIFT 1047]),
    (14272, [ENTRY 1 True, SHIFT 1163]), (14274, [ENTRY 1 True, SHIFT 1167]),
    (14276, [ENTRY 1 True, SHIFT 1172]), (14278, [ENTRY 1 True, SHIFT 1179]),
    (14280, [ENTRY 1 True, SHIFT 1180]), (14282, [ENTRY 1 True, SHIFT 1182]),
    (14284, [ENTRY 1 True, SHIFT 1187]), (14286, [ENTRY 1 True, SHIFT 1192]),
    (14288, [ENTRY 1 True, SHIFT 1197]), (14290, [ENTRY 1 True, SHIFT 1165]),
    (14292, [ENTRY 1 True, SHIFT 1051]), (14294, [ENTRY 1 True, SHIFT 12353]),
    (14296, [ENTRY 1 True, SHIFT 1087]), (14298, [ENTRY 1 True, SHIFT 1206]),
    (14300, [ENTRY 1 True, SHIFT 1207]), (14302, [ENTRY 1 True, SHIFT 1210]),
    (14304, [ENTRY 1 True, SHIFT 1089]), (14306, [ENTRY 1 True, SHIFT 1083]),
    (14308, [ENTRY 1 True, SHIFT 1213]), (14310, [ENTRY 1 True, SHIFT 945]),
    (14312, [ENTRY 1 True, SHIFT 947]), (14314, [ENTRY 1 True, SHIFT 948]),
    (14316, [ENTRY 1 True, SHIFT 953]), (14318, [ENTRY 1 True, SHIFT 959]),
    (14320, [ENTRY 1 True, SHIFT 960]), (14322, [ENTRY 1 True, SHIFT 963]),
    (14324, [ENTRY 1 True, SHIFT 966]), (14326, [ENTRY 1 True, SHIFT 1170]),
    (14328, [ENTRY 1 True, SHIFT 1054]), (14330, [ENTRY 1 True, SHIFT 1171]),
    (14332, [ENTRY 1 True, SHIFT 974]), (14334, [ENTRY 1 True, SHIFT 3849]),
    (14336, [ENTRY 1 True, SHIFT 1063]), (14338, [ENTRY 1 True, SHIFT 1176]),
    (14340, [ENTRY 1 True, SHIFT 12675]), (14342, [ENTRY 1 True, SHIFT 3772]),
    (14344, [ENTRY 1 True, SHIFT 978]), (14346, [ENTRY 1 True, SHIFT 983]),
    (14348, [ENTRY 1 True, SHIFT 984]), (14350, [ENTRY 1 True, SHIFT 987]),
    (14352, [ENTRY 1 True, SHIFT 994]), (14354, [ENTRY 1 True, SHIFT 995]),
    (14356, [ENTRY 1 True, SHIFT 998]), (14358, [ENTRY 1 True, SHIFT 1003]),
    (14360, [ENTRY 1 True, SHIFT 1006]), (14362, [ENTRY 1 True, SHIFT 1103])]"

definition parse_actions_47 :: "(nat \<times> TSParseActionEntry list) list" where "parse_actions_47 = [
    (14364, [ENTRY 1 True, SHIFT 1184]), (14366, [ENTRY 1 True, SHIFT 1104]),
    (14368, [ENTRY 1 True, SHIFT 1019]), (14370, [ENTRY 1 True, SHIFT 1029]),
    (14372, [ENTRY 1 True, SHIFT 1032]), (14374, [ENTRY 1 True, SHIFT 1035]),
    (14376, [ENTRY 1 True, SHIFT 1038]), (14378, [ENTRY 1 True, SHIFT 1095]),
    (14380, [ENTRY 1 True, SHIFT 1189]), (14382, [ENTRY 1 True, SHIFT 1117]),
    (14384, [ENTRY 1 True, SHIFT 12366]), (14386, [ENTRY 1 True, SHIFT 1049]),
    (14388, [ENTRY 1 True, REDUCE aux_sym_argument_list_repeat1 2 0 0]),
    (14390, [ENTRY 1 True, REDUCE aux_sym_import_prefix_repeat1 2 0 0]),
    (14392, [ENTRY 2 True, REDUCE aux_sym_import_prefix_repeat1 2 0 0, SHIFT_REPEAT 10261]),
    (14395, [ENTRY 1 True, SHIFT 1193]), (14397, [ENTRY 1 True, SHIFT 997]),
    (14399, [ENTRY 1 True, SHIFT 1042]), (14401, [ENTRY 1 True, SHIFT 1057]),
    (14403, [ENTRY 1 True, SHIFT 1066]), (14405, [ENTRY 1 True, SHIFT 1069]),
    (14407, [ENTRY 1 True, SHIFT 1070]), (14409, [ENTRY 1 True, SHIFT 1072]),
    (14411, [ENTRY 1 True, SHIFT 1077]), (14413, [ENTRY 1 True, SHIFT 1081]),
    (14415, [ENTRY 1 True, SHIFT 1217]), (14417, [ENTRY 1 True, SHIFT 1137]),
    (14419, [ENTRY 1 True, SHIFT 1092]), (14421, [ENTRY 1 True, SHIFT 1107]),
    (14423, [ENTRY 1 True, SHIFT 1208]), (14425, [ENTRY 1 True, SHIFT 1133]),
    (14427, [ENTRY 1 True, REDUCE aux_sym__collection_elements_repeat1 2 0 0]),
    (14429, [ENTRY 1 True, SHIFT 1096]),
    (14431, [ENTRY 2 True, REDUCE aux_sym_assert_statement_repeat1 2 0 0, SHIFT_REPEAT 4241]),
    (14434, [ENTRY 1 True, SHIFT 1100]), (14436, [ENTRY 1 True, SHIFT 1109]),
    (14438, [ENTRY 1 True, SHIFT 1113]), (14440, [ENTRY 1 True, SHIFT 1120]),
    (14442, [ENTRY 1 True, SHIFT 1124]), (14444, [ENTRY 1 True, SHIFT 1138]),
    (14446, [ENTRY 1 True, SHIFT 1141]), (14448, [ENTRY 1 True, SHIFT 1146]),
    (14450, [ENTRY 1 True, SHIFT 1147]), (14452, [ENTRY 1 True, SHIFT 1149]),
    (14454, [ENTRY 1 True, SHIFT 1156]), (14456, [ENTRY 1 True, SHIFT 1159]),
    (14458, [ENTRY 1 True, SHIFT 1162]), (14460, [ENTRY 1 True, SHIFT 1166]),
    (14462, [ENTRY 1 True, SHIFT 1169]), (14464, [ENTRY 1 True, SHIFT 1173]),
    (14466, [ENTRY 1 True, SHIFT 1215]), (14468, [ENTRY 1 False, SHIFT 12554]),
    (14470, [ENTRY 1 False, SHIFT 6880]), (14472, [ENTRY 1 False, SHIFT 11901]),
    (14474, [ENTRY 1 True, REDUCE sym_typed_parameter 3 0 52]),
    (14476, [ENTRY 1 True, SHIFT 4087]),
    (14478, [ENTRY 1 True, REDUCE sym_default_parameter 3 0 19]),
    (14480, [ENTRY 1 True, SHIFT 1185]), (14482, [ENTRY 1 True, SHIFT 1186]),
    (14484, [ENTRY 1 True, SHIFT 1188]), (14486, [ENTRY 1 True, SHIFT 1191]),
    (14488, [ENTRY 1 True, SHIFT 1194]), (14490, [ENTRY 1 True, SHIFT 1198]),
    (14492, [ENTRY 1 True, SHIFT 1202]), (14494, [ENTRY 1 True, SHIFT 1205]),
    (14496, [ENTRY 1 True, SHIFT 1209]), (14498, [ENTRY 1 True, SHIFT 1216]),
    (14500, [ENTRY 1 True, SHIFT 931]), (14502, [ENTRY 1 True, SHIFT 932]),
    (14504, [ENTRY 1 True, SHIFT 934]), (14506, [ENTRY 1 True, SHIFT 938]),
    (14508, [ENTRY 1 True, SHIFT 939]), (14510, [ENTRY 1 True, SHIFT 941]),
    (14512, [ENTRY 1 True, SHIFT 944]), (14514, [ENTRY 1 True, SHIFT 949]),
    (14516, [ENTRY 1 True, SHIFT 950]), (14518, [ENTRY 1 True, SHIFT 952]),
    (14520, [ENTRY 1 True, SHIFT 955]), (14522, [ENTRY 1 True, SHIFT 958]),
    (14524, [ENTRY 1 True, SHIFT 961]), (14526, [ENTRY 1 True, SHIFT 1148]),
    (14528, [ENTRY 1 True, SHIFT 935]), (14530, [ENTRY 1 True, SHIFT 942]),
    (14532, [ENTRY 1 True, SHIFT 970]), (14534, [ENTRY 1 True, SHIFT 972]),
    (14536, [ENTRY 1 True, SHIFT 973]), (14538, [ENTRY 1 True, SHIFT 975]),
    (14540, [ENTRY 1 True, SHIFT 979]), (14542, [ENTRY 1 True, SHIFT 980]),
    (14544, [ENTRY 1 True, SHIFT 982]), (14546, [ENTRY 1 True, SHIFT 985]),
    (14548, [ENTRY 1 True, SHIFT 990]), (14550, [ENTRY 1 True, SHIFT 991]),
    (14552, [ENTRY 1 True, SHIFT 993]), (14554, [ENTRY 1 True, SHIFT 996]),
    (14556, [ENTRY 1 True, SHIFT 999]), (14558, [ENTRY 1 True, SHIFT 1002]),
    (14560, [ENTRY 1 True, SHIFT 1014]), (14562, [ENTRY 1 True, SHIFT 1020]),
    (14564, [ENTRY 1 True, SHIFT 1022]), (14566, [ENTRY 1 True, SHIFT 1023]),
    (14568, [ENTRY 1 True, SHIFT 1025]), (14570, [ENTRY 1 True, SHIFT 1031]),
    (14572, [ENTRY 1 True, SHIFT 1033]), (14574, [ENTRY 1 True, SHIFT 1034]),
    (14576, [ENTRY 1 True, SHIFT 1036]), (14578, [ENTRY 1 True, SHIFT 1040]),
    (14580, [ENTRY 1 True, SHIFT 1041]), (14582, [ENTRY 1 True, SHIFT 1043]),
    (14584, [ENTRY 1 True, SHIFT 1046]), (14586, [ENTRY 1 True, REDUCE sym_slice 5 0 0]),
    (14588, [ENTRY 1 True, SHIFT 1056]), (14590, [ENTRY 1 True, SHIFT 1062]),
    (14592, [ENTRY 1 True, SHIFT 1064]), (14594, [ENTRY 1 True, SHIFT 1065]),
    (14596, [ENTRY 1 True, SHIFT 1067]), (14598, [ENTRY 1 True, SHIFT 1073]),
    (14600, [ENTRY 1 True, SHIFT 1075]), (14602, [ENTRY 1 True, SHIFT 1076]),
    (14604, [ENTRY 1 True, SHIFT 1078]), (14606, [ENTRY 1 True, SHIFT 1082]),
    (14608, [ENTRY 1 True, SHIFT 929]), (14610, [ENTRY 1 True, SHIFT 1085]),
    (14612, [ENTRY 1 True, SHIFT 1088]), (14614, [ENTRY 1 True, SHIFT 1101]),
    (14616, [ENTRY 1 True, SHIFT 1110]), (14618, [ENTRY 1 True, SHIFT 1116]),
    (14620, [ENTRY 1 True, SHIFT 1118]), (14622, [ENTRY 1 True, SHIFT 1119]),
    (14624, [ENTRY 1 True, SHIFT 1121]), (14626, [ENTRY 1 True, SHIFT 1135]),
    (14628, [ENTRY 1 True, SHIFT 1144]), (14630, [ENTRY 1 True, SHIFT 1150]),
    (14632, [ENTRY 1 True, SHIFT 1152]), (14634, [ENTRY 1 True, SHIFT 1153]),
    (14636, [ENTRY 1 True, SHIFT 1155]), (14638, [ENTRY 1 True, SHIFT 1175]),
    (14640, [ENTRY 1 True, SHIFT 1195]), (14642, [ENTRY 1 True, SHIFT 1052]),
    (14644, [ENTRY 1 True, REDUCE aux_sym_parameter_list_repeat1 2 0 0]),
    (14646, [ENTRY 1 True, SHIFT 1160]), (14648, [ENTRY 1 True, SHIFT 3831]),
    (14650, [ENTRY 1 True, SHIFT 951]), (14652, [ENTRY 1 True, SHIFT 1004]),
    (14654, [ENTRY 1 True, SHIFT 3838]), (14656, [ENTRY 1 True, SHIFT 3832]),
    (14658, [ENTRY 2 True, REDUCE aux_sym_for_in_clause_repeat1 2 0 0, SHIFT_REPEAT 3953]),
    (14661, [ENTRY 1 True, REDUCE aux_sym_type_parameter_repeat1 4 0 129]),
    (14663, [ENTRY 1 True, SHIFT 4026]), (14665, [ENTRY 1 True, SHIFT 1174])]"

definition parse_actions_48 :: "(nat \<times> TSParseActionEntry list) list" where "parse_actions_48 = [
    (14667, [ENTRY 1 True, REDUCE sym_assignment 3 0 20]), (14669, [ENTRY 1 True, SHIFT 2358]),
    (14671, [ENTRY 1 True, SHIFT 1012]), (14673, [ENTRY 1 True, SHIFT 3830]),
    (14675, [ENTRY 1 True, REDUCE sym_for_in_clause 4 0 40]), (14677, [ENTRY 1 True, SHIFT 12447]),
    (14679, [ENTRY 1 True, SHIFT 937]), (14681, [ENTRY 1 True, SHIFT 3836]),
    (14683, [ENTRY 1 True, REDUCE sym_for_in_clause 5 0 127]), (14685, [ENTRY 1 True, SHIFT 3837]),
    (14687, [ENTRY 1 True, REDUCE sym_for_in_clause 5 0 128]), (14689, [ENTRY 1 True, SHIFT 1190]),
    (14691, [ENTRY 1 True, SHIFT 8318]), (14693, [ENTRY 1 True, SHIFT 1949]),
    (14695, [ENTRY 1 True, SHIFT 12308]), (14697, [ENTRY 1 True, REDUCE sym_interpolation 5 0 89]),
    (14699, [ENTRY 1 False, REDUCE sym_interpolation 5 0 89]),
    (14701, [ENTRY 1 True, REDUCE sym_interpolation 5 0 90]),
    (14703, [ENTRY 1 False, REDUCE sym_interpolation 5 0 90]),
    (14705, [ENTRY 1 True, REDUCE sym_interpolation 5 0 91]),
    (14707, [ENTRY 1 False, REDUCE sym_interpolation 5 0 91]),
    (14709, [ENTRY 1 True, REDUCE sym_typed_parameter 4 0 80]),
    (14711, [ENTRY 1 True, SHIFT 4164]), (14713, [ENTRY 1 True, SHIFT 1021]),
    (14715, [ENTRY 1 True, SHIFT 933]), (14717, [ENTRY 1 True, SHIFT 3842]),
    (14719, [ENTRY 1 True, SHIFT 3843]),
    (14721, [ENTRY 2 True, REDUCE aux_sym_for_in_clause_repeat1 2 0 0, SHIFT_REPEAT 3925]),
    (14724, [ENTRY 1 True, SHIFT 2052]), (14726, [ENTRY 1 True, SHIFT 1017]),
    (14728, [ENTRY 1 True, SHIFT 3829]), (14730, [ENTRY 1 True, SHIFT 8201]),
    (14732, [ENTRY 1 True, SHIFT 1901]), (14734, [ENTRY 1 True, SHIFT 1037]),
    (14736, [ENTRY 1 True, SHIFT 8210]), (14738, [ENTRY 1 True, SHIFT 1903]),
    (14740, [ENTRY 1 True, REDUCE sym_keyword_pattern 3 0 0]), (14742, [ENTRY 1 True, SHIFT 7937]),
    (14744, [ENTRY 1 True, SHIFT 1074]), (14746, [ENTRY 1 True, SHIFT 2033]),
    (14748, [ENTRY 1 True, SHIFT 8567]),
    (14750, [ENTRY 1 True, REDUCE aux_sym_union_pattern_repeat1 2 0 0]),
    (14752, [ENTRY 2 True, REDUCE aux_sym_union_pattern_repeat1 2 0 0, SHIFT_REPEAT 7937]),
    (14755, [ENTRY 1 True, REDUCE sym_interpolation 3 0 29]),
    (14757, [ENTRY 1 False, REDUCE sym_interpolation 3 0 29]),
    (14759, [ENTRY 1 True, SHIFT 12746]),
    (14761, [ENTRY 1 True, REDUCE sym_raise_statement 3 0 16]),
    (14763, [ENTRY 1 True, SHIFT 3833]), (14765, [ENTRY 1 True, SHIFT 1079]),
    (14767, [ENTRY 2 True, REDUCE aux_sym_dotted_name_repeat1 2 0 0, SHIFT_REPEAT 12746]),
    (14770, [ENTRY 1 True, SHIFT 1142]), (14772, [ENTRY 1 True, SHIFT 1010]),
    (14774, [ENTRY 1 True, SHIFT 1053]), (14776, [ENTRY 1 True, SHIFT 8222]),
    (14778, [ENTRY 1 True, SHIFT 1892]), (14780, [ENTRY 1 True, SHIFT 1158]),
    (14782, [ENTRY 1 True, SHIFT 2092]), (14784, [ENTRY 1 True, SHIFT 1090]),
    (14786, [ENTRY 1 True, SHIFT 3839]), (14788, [ENTRY 1 True, SHIFT 1211]),
    (14790, [ENTRY 1 True, SHIFT 12331]), (14792, [ENTRY 1 True, SHIFT 1093]),
    (14794, [ENTRY 1 True, SHIFT 1094]), (14796, [ENTRY 1 False, SHIFT 12720]),
    (14798, [ENTRY 1 False, SHIFT 12372]), (14800, [ENTRY 1 True, SHIFT 930]),
    (14802, [ENTRY 1 True, SHIFT 1168]), (14804, [ENTRY 1 True, SHIFT 1097]),
    (14806, [ENTRY 1 True, REDUCE sym_interpolation 4 0 29]),
    (14808, [ENTRY 1 False, REDUCE sym_interpolation 4 0 29]), (14810, [ENTRY 1 True, SHIFT 1080]),
    (14812, [ENTRY 1 True, REDUCE sym_interpolation 4 0 57]),
    (14814, [ENTRY 1 False, REDUCE sym_interpolation 4 0 57]), (14816, [ENTRY 1 True, SHIFT 940]),
    (14818, [ENTRY 1 True, SHIFT 1059]), (14820, [ENTRY 1 True, SHIFT 946]),
    (14822, [ENTRY 1 True, REDUCE sym_interpolation 4 0 58]),
    (14824, [ENTRY 1 False, REDUCE sym_interpolation 4 0 58]), (14826, [ENTRY 1 True, SHIFT 943]),
    (14828, [ENTRY 1 True, SHIFT 1098]), (14830, [ENTRY 1 True, SHIFT 956]),
    (14832, [ENTRY 1 True, SHIFT 1102]), (14834, [ENTRY 1 True, SHIFT 2042]),
    (14836, [ENTRY 1 True, SHIFT 8517]), (14838, [ENTRY 1 True, SHIFT 1105]),
    (14840, [ENTRY 1 True, SHIFT 954]), (14842, [ENTRY 1 True, SHIFT 1108]),
    (14844, [ENTRY 1 True, SHIFT 1127]), (14846, [ENTRY 1 True, SHIFT 1111]),
    (14848, [ENTRY 1 True, SHIFT 957]), (14850, [ENTRY 1 True, SHIFT 9500]),
    (14852, [ENTRY 1 True, SHIFT 1911]), (14854, [ENTRY 1 True, SHIFT 964]),
    (14856, [ENTRY 1 True, REDUCE sym_comptime_assert_statement 2 0 0]),
    (14858, [ENTRY 1 True, SHIFT 1114]), (14860, [ENTRY 1 True, SHIFT 1134]),
    (14862, [ENTRY 1 True, SHIFT 968]), (14864, [ENTRY 1 True, SHIFT 2061]),
    (14866, [ENTRY 1 True, SHIFT 9507]), (14868, [ENTRY 1 True, SHIFT 1912]),
    (14870, [ENTRY 1 True, SHIFT 9513]), (14872, [ENTRY 1 True, SHIFT 1914]),
    (14874, [ENTRY 1 True, SHIFT 962]), (14876, [ENTRY 1 True, SHIFT 8363]),
    (14878, [ENTRY 1 True, SHIFT 1896]), (14880, [ENTRY 1 True, SHIFT 992]),
    (14882, [ENTRY 1 True, SHIFT 981]), (14884, [ENTRY 1 True, SHIFT 2068]),
    (14886, [ENTRY 1 True, SHIFT 8333]), (14888, [ENTRY 1 True, SHIFT 1123]),
    (14890, [ENTRY 1 True, SHIFT 965]), (14892, [ENTRY 1 True, SHIFT 1126]),
    (14894, [ENTRY 1 True, SHIFT 9520]), (14896, [ENTRY 1 True, SHIFT 1889]),
    (14898, [ENTRY 1 True, SHIFT 1048]), (14900, [ENTRY 1 True, SHIFT 2073]),
    (14902, [ENTRY 1 True, SHIFT 1000]),
    (14904, [ENTRY 1 True, REDUCE aux_sym_capture_list_repeat1 2 0 0]),
    (14906, [ENTRY 1 True, REDUCE sym_struct_literal_field 3 0 50]),
    (14908, [ENTRY 1 True, SHIFT 1145]), (14910, [ENTRY 1 True, SHIFT 8117]),
    (14912, [ENTRY 1 True, SHIFT 1952]), (14914, [ENTRY 1 True, SHIFT 8119]),
    (14916, [ENTRY 1 True, SHIFT 1953]), (14918, [ENTRY 1 True, SHIFT 8124]),
    (14920, [ENTRY 1 True, SHIFT 1955]), (14922, [ENTRY 1 True, SHIFT 8131]),
    (14924, [ENTRY 1 True, SHIFT 1957]), (14926, [ENTRY 1 True, SHIFT 1128]),
    (14928, [ENTRY 1 True, REDUCE sym_typed_default_parameter 5 0 125]),
    (14930, [ENTRY 1 True, SHIFT 1007]), (14932, [ENTRY 1 True, SHIFT 1161]),
    (14934, [ENTRY 1 True, SHIFT 2057]), (14936, [ENTRY 1 True, SHIFT 1131]),
    (14938, [ENTRY 1 True, SHIFT 988]), (14940, [ENTRY 1 True, SHIFT 1178]),
    (14942, [ENTRY 1 True, SHIFT 1050]), (14944, [ENTRY 1 True, SHIFT 3823]),
    (14946, [ENTRY 1 True, REDUCE sym_struct_literal_field 3 0 19]),
    (14948, [ENTRY 1 True, SHIFT 3834]), (14950, [ENTRY 1 True, SHIFT 1015]),
    (14952, [ENTRY 1 True, SHIFT 1071]),
    (14954, [ENTRY 1 True, REDUCE aux_sym_parameter_list_repeat1 3 0 0]),
    (14956, [ENTRY 1 True, SHIFT 1106]), (14958, [ENTRY 1 True, REDUCE sym_assignment 4 0 39]),
    (14960, [ENTRY 1 True, SHIFT 2374]), (14962, [ENTRY 1 True, REDUCE sym_interpolation 6 0 126]),
    (14964, [ENTRY 1 False, REDUCE sym_interpolation 6 0 126]),
    (14966, [ENTRY 1 True, SHIFT 1129]), (14968, [ENTRY 1 True, SHIFT 3847])]"

definition parse_actions_49 :: "(nat \<times> TSParseActionEntry list) list" where "parse_actions_49 = [
    (14970, [ENTRY 1 True, SHIFT 3848]), (14972, [ENTRY 1 True, SHIFT 989]),
    (14974, [ENTRY 1 True, SHIFT 1151]), (14976, [ENTRY 1 True, SHIFT 1157]),
    (14978, [ENTRY 1 True, SHIFT 9457]), (14980, [ENTRY 1 True, SHIFT 1920]),
    (14982, [ENTRY 1 True, REDUCE sym_raise_statement 4 0 41]),
    (14984, [ENTRY 1 True, SHIFT 1177]), (14986, [ENTRY 1 True, SHIFT 2022]),
    (14988, [ENTRY 1 True, SHIFT 9499]), (14990, [ENTRY 1 True, SHIFT 1921]),
    (14992, [ENTRY 1 True, SHIFT 1183]), (14994, [ENTRY 1 True, SHIFT 2038]),
    (14996, [ENTRY 1 True, SHIFT 9465]), (14998, [ENTRY 1 True, SHIFT 1923]),
    (15000, [ENTRY 1 True, SHIFT 12351]), (15002, [ENTRY 1 True, SHIFT 1164]),
    (15004, [ENTRY 2 True, REDUCE aux_sym_struct_literal_repeat1 2 0 0, REDUCE aux_sym__collection_elements_repeat1 2 0 0]),
    (15007, [ENTRY 1 True, REDUCE aux_sym_match_statement_repeat1 2 0 44]),
    (15009, [ENTRY 1 True, SHIFT 1203]), (15011, [ENTRY 1 True, SHIFT 2096]),
    (15013, [ENTRY 1 True, SHIFT 8533]), (15015, [ENTRY 1 True, SHIFT 967]),
    (15017, [ENTRY 1 True, REDUCE sym_union_pattern 2 0 0]), (15019, [ENTRY 1 True, SHIFT 1181]),
    (15021, [ENTRY 1 True, SHIFT 1044]), (15023, [ENTRY 1 True, SHIFT 1196]),
    (15025, [ENTRY 1 True, SHIFT 1200]), (15027, [ENTRY 1 True, SHIFT 1201]),
    (15029, [ENTRY 1 True, SHIFT 9481]), (15031, [ENTRY 1 True, SHIFT 1925]),
    (15033, [ENTRY 1 True, SHIFT 4121]), (15035, [ENTRY 1 True, SHIFT 1283]),
    (15037, [ENTRY 1 True, SHIFT 2023]), (15039, [ENTRY 1 True, SHIFT 969]),
    (15041, [ENTRY 1 True, SHIFT 971]), (15043, [ENTRY 1 True, SHIFT 7885]),
    (15045, [ENTRY 1 True, SHIFT 7823]), (15047, [ENTRY 1 True, SHIFT 12572]),
    (15049, [ENTRY 1 True, SHIFT 1398]), (15051, [ENTRY 1 True, SHIFT 4150]),
    (15053, [ENTRY 1 True, REDUCE sym_import_prefix 1 0 0]), (15055, [ENTRY 1 True, SHIFT 10261]),
    (15057, [ENTRY 1 True, SHIFT 1055]), (15059, [ENTRY 1 True, SHIFT 976]),
    (15061, [ENTRY 1 True, SHIFT 1060]), (15063, [ENTRY 1 True, SHIFT 1061]),
    (15065, [ENTRY 1 True, REDUCE sym_case_pattern 1 0 0]), (15067, [ENTRY 1 True, SHIFT 1068]),
    (15069, [ENTRY 1 True, SHIFT 1016]), (15071, [ENTRY 1 True, SHIFT 8107]),
    (15073, [ENTRY 1 True, SHIFT 1930]),
    (15075, [ENTRY 1 True, REDUCE aux_sym_struct_literal_repeat1 2 0 0]),
    (15077, [ENTRY 1 True, SHIFT 1084]), (15079, [ENTRY 1 True, SHIFT 8111]),
    (15081, [ENTRY 1 True, SHIFT 1931]), (15083, [ENTRY 1 True, SHIFT 8157]),
    (15085, [ENTRY 1 True, SHIFT 1933]), (15087, [ENTRY 1 True, SHIFT 1086]),
    (15089, [ENTRY 1 True, SHIFT 1005]), (15091, [ENTRY 1 True, SHIFT 8172]),
    (15093, [ENTRY 1 True, SHIFT 1935]), (15095, [ENTRY 1 True, SHIFT 1008]),
    (15097, [ENTRY 1 True, SHIFT 1212]), (15099, [ENTRY 1 True, SHIFT 1009]),
    (15101, [ENTRY 1 True, SHIFT 977]), (15103, [ENTRY 1 True, SHIFT 1091]),
    (15105, [ENTRY 1 True, SHIFT 8409]), (15107, [ENTRY 1 True, SHIFT 1963]),
    (15109, [ENTRY 1 True, SHIFT 8411]), (15111, [ENTRY 1 True, SHIFT 1964]),
    (15113, [ENTRY 1 True, SHIFT 8416]), (15115, [ENTRY 1 True, SHIFT 1966]),
    (15117, [ENTRY 1 True, SHIFT 8423]), (15119, [ENTRY 1 True, SHIFT 1968]),
    (15121, [ENTRY 1 True, SHIFT 1204]), (15123, [ENTRY 1 True, SHIFT 8445]),
    (15125, [ENTRY 1 True, SHIFT 1973]), (15127, [ENTRY 1 True, SHIFT 8447]),
    (15129, [ENTRY 1 True, SHIFT 1974]), (15131, [ENTRY 1 True, SHIFT 8452]),
    (15133, [ENTRY 1 True, SHIFT 1976]), (15135, [ENTRY 1 True, SHIFT 8459]),
    (15137, [ENTRY 1 True, SHIFT 1978]), (15139, [ENTRY 1 True, SHIFT 1199]),
    (15141, [ENTRY 1 True, SHIFT 8370]), (15143, [ENTRY 1 True, SHIFT 1983]),
    (15145, [ENTRY 1 True, SHIFT 8372]), (15147, [ENTRY 1 True, SHIFT 1984]),
    (15149, [ENTRY 1 True, SHIFT 8377]), (15151, [ENTRY 1 True, SHIFT 1986]),
    (15153, [ENTRY 1 True, SHIFT 8385]), (15155, [ENTRY 1 True, SHIFT 1988]),
    (15157, [ENTRY 1 True, REDUCE aux_sym_superclass_list_repeat1 3 0 0]),
    (15159, [ENTRY 1 True, REDUCE aux_sym_superclass_list_repeat1 3 0 36]),
    (15161, [ENTRY 1 True, REDUCE sym_self_parameter 3 0 52]), (15163, [ENTRY 1 True, SHIFT 7237]),
    (15165, [ENTRY 1 True, SHIFT 10947]), (15167, [ENTRY 1 True, SHIFT 4212]),
    (15169, [ENTRY 1 True, SHIFT 4228]), (15171, [ENTRY 1 True, SHIFT 1592]),
    (15173, [ENTRY 1 True, SHIFT 2791]), (15175, [ENTRY 1 True, SHIFT 7243]),
    (15177, [ENTRY 1 True, SHIFT 11072]), (15179, [ENTRY 1 True, SHIFT 1598]),
    (15181, [ENTRY 1 True, SHIFT 2792]), (15183, [ENTRY 1 True, SHIFT 1602]),
    (15185, [ENTRY 1 True, SHIFT 2793]), (15187, [ENTRY 1 True, SHIFT 1601]),
    (15189, [ENTRY 1 True, SHIFT 2794]), (15191, [ENTRY 1 True, SHIFT 1642]),
    (15193, [ENTRY 1 True, SHIFT 2796]), (15195, [ENTRY 1 True, SHIFT 6721]),
    (15197, [ENTRY 1 True, SHIFT 4074]), (15199, [ENTRY 1 True, SHIFT 1455]),
    (15201, [ENTRY 1 True, SHIFT 2367]), (15203, [ENTRY 1 True, SHIFT 7796]),
    (15205, [ENTRY 1 True, SHIFT 10959]), (15207, [ENTRY 1 True, SHIFT 4226]),
    (15209, [ENTRY 1 True, SHIFT 7799]), (15211, [ENTRY 1 True, SHIFT 1689]),
    (15213, [ENTRY 1 True, SHIFT 2797]), (15215, [ENTRY 1 True, SHIFT 1436]),
    (15217, [ENTRY 1 True, SHIFT 2373]), (15219, [ENTRY 1 True, SHIFT 1286]),
    (15221, [ENTRY 1 True, SHIFT 2184]), (15223, [ENTRY 1 True, SHIFT 4219]),
    (15225, [ENTRY 1 True, REDUCE sym_lambda_within_for_in_clause 4 0 53]),
    (15227, [ENTRY 1 True, SHIFT 1223]), (15229, [ENTRY 1 True, REDUCE sym__tuple_pattern 4 0 0]),
    (15231, [ENTRY 1 True, SHIFT 1224]), (15233, [ENTRY 1 True, SHIFT 3717]),
    (15235, [ENTRY 1 True, SHIFT 1226]), (15237, [ENTRY 1 True, REDUCE sym__list_pattern 4 0 0]),
    (15239, [ENTRY 1 True, SHIFT 1338]), (15241, [ENTRY 1 True, SHIFT 11032]),
    (15243, [ENTRY 1 True, SHIFT 12117]), (15245, [ENTRY 1 True, SHIFT 11735]),
    (15247, [ENTRY 1 True, SHIFT 12044]), (15249, [ENTRY 1 True, SHIFT 4070]),
    (15251, [ENTRY 1 True, REDUCE sym_lambda_within_for_in_clause 3 0 17]),
    (15253, [ENTRY 1 True, REDUCE aux_sym_function_definition_repeat1 2 0 0]),
    (15255, [ENTRY 2 True, REDUCE aux_sym_function_definition_repeat1 2 0 0, SHIFT_REPEAT 4247]),
    (15258, [ENTRY 1 True, REDUCE aux_sym_type_parameter_repeat1 5 0 131]),
    (15260, [ENTRY 1 True, SHIFT 1531]), (15262, [ENTRY 1 True, SHIFT 2826]),
    (15264, [ENTRY 1 True, SHIFT 6778]), (15266, [ENTRY 1 True, SHIFT 11005]),
    (15268, [ENTRY 1 True, REDUCE sym_dict_pattern 4 0 170]),
    (15270, [ENTRY 1 True, REDUCE aux_sym_type_parameter_repeat1 4 0 131])]"

definition parse_actions_50 :: "(nat \<times> TSParseActionEntry list) list" where "parse_actions_50 = [
    (15272, [ENTRY 2 True, REDUCE aux_sym__patterns_repeat1 2 0 0, SHIFT_REPEAT 6752]),
    (15275, [ENTRY 1 True, SHIFT 4079]), (15277, [ENTRY 1 True, SHIFT 1799]),
    (15279, [ENTRY 1 True, SHIFT 2201]), (15281, [ENTRY 1 True, SHIFT 7865]),
    (15283, [ENTRY 1 True, SHIFT 7939]),
    (15285, [ENTRY 2 True, REDUCE aux_sym_function_definition_repeat1 2 0 0, SHIFT_REPEAT 4159]),
    (15288, [ENTRY 1 True, SHIFT 1617]), (15290, [ENTRY 1 True, SHIFT 2310]),
    (15292, [ENTRY 1 True, SHIFT 1306]), (15294, [ENTRY 1 True, SHIFT 2340]),
    (15296, [ENTRY 1 True, SHIFT 1614]), (15298, [ENTRY 1 True, SHIFT 2329]),
    (15300, [ENTRY 2 False, REDUCE aux_sym_format_specifier_repeat1 2 0 0, SHIFT_REPEAT 3669]),
    (15303, [ENTRY 1 False, REDUCE aux_sym_format_specifier_repeat1 2 0 0]),
    (15305, [ENTRY 2 True, REDUCE aux_sym_format_specifier_repeat1 2 0 0, SHIFT_REPEAT 10997]),
    (15308, [ENTRY 1 True, SHIFT 1789]), (15310, [ENTRY 1 True, SHIFT 2188]),
    (15312, [ENTRY 1 True, SHIFT 1785]), (15314, [ENTRY 1 True, SHIFT 2192]),
    (15316, [ENTRY 1 True, SHIFT 1292]), (15318, [ENTRY 1 True, SHIFT 4176]),
    (15320, [ENTRY 1 True, SHIFT 1250]), (15322, [ENTRY 1 True, SHIFT 1315]),
    (15324, [ENTRY 1 True, SHIFT 2360]), (15326, [ENTRY 1 True, SHIFT 6771]),
    (15328, [ENTRY 1 True, REDUCE sym_self_parameter 4 0 80]), (15330, [ENTRY 1 True, SHIFT 1255]),
    (15332, [ENTRY 1 True, SHIFT 2722]), (15334, [ENTRY 1 True, SHIFT 1318]),
    (15336, [ENTRY 1 True, SHIFT 2363]), (15338, [ENTRY 1 True, SHIFT 1253]),
    (15340, [ENTRY 1 True, SHIFT 2723]), (15342, [ENTRY 1 True, REDUCE sym_dict_pattern 4 0 220]),
    (15344, [ENTRY 1 True, SHIFT 1316]), (15346, [ENTRY 1 True, SHIFT 2365]),
    (15348, [ENTRY 1 True, SHIFT 1262]),
    (15350, [ENTRY 2 True, REDUCE aux_sym_union_pattern_repeat1 2 0 0, SHIFT_REPEAT 7939]),
    (15353, [ENTRY 1 True, SHIFT 6989]), (15355, [ENTRY 1 True, REDUCE sym__tuple_pattern 3 0 0]),
    (15357, [ENTRY 1 True, SHIFT 1268]), (15359, [ENTRY 1 True, SHIFT 2727]),
    (15361, [ENTRY 1 True, SHIFT 1266]), (15363, [ENTRY 1 True, SHIFT 2728]),
    (15365, [ENTRY 1 True, REDUCE sym__list_pattern 3 0 0]),
    (15367, [ENTRY 1 True, REDUCE sym_dict_pattern 4 0 0]),
    (15369, [ENTRY 1 True, REDUCE sym_dict_pattern 3 0 170]),
    (15371, [ENTRY 1 True, REDUCE sym_relative_import 1 0 0]), (15373, [ENTRY 1 True, SHIFT 1284]),
    (15375, [ENTRY 1 True, SHIFT 2732]), (15377, [ENTRY 1 False, SHIFT 3669]),
    (15379, [ENTRY 1 False, REDUCE sym_format_specifier 1 0 0]),
    (15381, [ENTRY 1 True, SHIFT 11081]), (15383, [ENTRY 1 True, SHIFT 1289]),
    (15385, [ENTRY 1 True, SHIFT 2733]), (15387, [ENTRY 1 True, REDUCE sym_dict_pattern 3 0 0]),
    (15389, [ENTRY 1 True, SHIFT 1287]), (15391, [ENTRY 1 True, SHIFT 2734]),
    (15393, [ENTRY 1 True, REDUCE sym_complex_pattern 3 0 0]),
    (15395, [ENTRY 1 True, REDUCE sym__tuple_pattern 5 0 0]),
    (15397, [ENTRY 1 True, REDUCE sym_class_pattern 3 0 0]), (15399, [ENTRY 1 True, SHIFT 7434]),
    (15401, [ENTRY 1 True, REDUCE sym__list_pattern 5 0 0]),
    (15403, [ENTRY 1 True, REDUCE sym_dict_pattern 4 0 222]), (15405, [ENTRY 1 True, SHIFT 1303]),
    (15407, [ENTRY 1 True, SHIFT 2107]), (15409, [ENTRY 1 True, SHIFT 1308]),
    (15411, [ENTRY 1 True, SHIFT 2737]), (15413, [ENTRY 1 True, SHIFT 1307]),
    (15415, [ENTRY 1 True, SHIFT 2738]), (15417, [ENTRY 1 True, SHIFT 1311]),
    (15419, [ENTRY 1 True, SHIFT 1671]), (15421, [ENTRY 1 True, SHIFT 2401]),
    (15423, [ENTRY 1 True, SHIFT 7631]), (15425, [ENTRY 1 True, SHIFT 11063]),
    (15427, [ENTRY 1 True, REDUCE sym_complex_pattern 4 0 0]), (15429, [ENTRY 1 True, SHIFT 3895]),
    (15431, [ENTRY 1 True, SHIFT 4240]), (15433, [ENTRY 1 True, SHIFT 1330]),
    (15435, [ENTRY 1 True, SHIFT 2741]), (15437, [ENTRY 1 True, SHIFT 1806]),
    (15439, [ENTRY 1 True, SHIFT 2208]), (15441, [ENTRY 1 True, SHIFT 1801]),
    (15443, [ENTRY 1 True, SHIFT 2211]), (15445, [ENTRY 1 True, REDUCE sym_class_pattern 4 0 0]),
    (15447, [ENTRY 1 True, SHIFT 7866]), (15449, [ENTRY 1 True, SHIFT 7932]),
    (15451, [ENTRY 1 True, SHIFT 7430]), (15453, [ENTRY 1 True, SHIFT 11040]),
    (15455, [ENTRY 1 True, SHIFT 1351]), (15457, [ENTRY 1 True, SHIFT 2743]),
    (15459, [ENTRY 1 True, SHIFT 7643]), (15461, [ENTRY 1 True, SHIFT 7906]),
    (15463, [ENTRY 1 True, SHIFT 11397]), (15465, [ENTRY 1 True, REDUCE sym_dict_pattern 5 0 220]),
    (15467, [ENTRY 1 True, SHIFT 4145]), (15469, [ENTRY 1 True, SHIFT 1300]),
    (15471, [ENTRY 1 True, SHIFT 2376]), (15473, [ENTRY 1 True, SHIFT 1778]),
    (15475, [ENTRY 1 True, SHIFT 2176]),
    (15477, [ENTRY 1 True, REDUCE aux_sym_mlir_fragment_repeat1 2 0 0]),
    (15479, [ENTRY 2 True, REDUCE aux_sym_mlir_fragment_repeat1 2 0 0, SHIFT_REPEAT 11072]),
    (15482, [ENTRY 1 True, SHIFT 7929]), (15484, [ENTRY 1 True, SHIFT 7887]),
    (15486, [ENTRY 1 True, SHIFT 1526]), (15488, [ENTRY 1 True, SHIFT 2115]),
    (15490, [ENTRY 2 True, REDUCE aux_sym_union_pattern_repeat1 2 0 0, SHIFT_REPEAT 7932]),
    (15493, [ENTRY 1 False, REDUCE sym_format_specifier 2 0 0]),
    (15495, [ENTRY 1 True, SHIFT 10997]), (15497, [ENTRY 1 True, SHIFT 1404]),
    (15499, [ENTRY 1 True, SHIFT 2752]), (15501, [ENTRY 1 True, SHIFT 1402]),
    (15503, [ENTRY 1 True, SHIFT 2753]), (15505, [ENTRY 1 True, SHIFT 1567]),
    (15507, [ENTRY 1 True, SHIFT 2162]), (15509, [ENTRY 1 True, SHIFT 1558]),
    (15511, [ENTRY 1 True, SHIFT 2169]), (15513, [ENTRY 1 True, SHIFT 1686]),
    (15515, [ENTRY 1 True, SHIFT 2421]),
    (15517, [ENTRY 2 True, REDUCE aux_sym_union_pattern_repeat1 2 0 0, SHIFT_REPEAT 7929]),
    (15520, [ENTRY 1 True, SHIFT 7561]), (15522, [ENTRY 1 True, SHIFT 11097]),
    (15524, [ENTRY 1 True, SHIFT 4080]), (15526, [ENTRY 1 True, SHIFT 1326]),
    (15528, [ENTRY 1 True, SHIFT 2381]), (15530, [ENTRY 1 True, SHIFT 4130]),
    (15532, [ENTRY 1 True, REDUCE sym_dict_pattern 5 0 222]), (15534, [ENTRY 1 True, SHIFT 7597]),
    (15536, [ENTRY 1 True, REDUCE sym_class_pattern 5 0 0]),
    (15538, [ENTRY 1 True, REDUCE aux_sym_function_type_repeat1 3 0 76]),
    (15540, [ENTRY 1 True, REDUCE aux_sym_function_type_repeat1 2 0 116]),
    (15542, [ENTRY 1 True, SHIFT 1682]), (15544, [ENTRY 1 True, SHIFT 2705]),
    (15546, [ENTRY 1 True, REDUCE sym_splat_pattern 2 0 0]), (15548, [ENTRY 1 True, SHIFT 1364]),
    (15550, [ENTRY 1 True, SHIFT 2709]), (15552, [ENTRY 1 True, SHIFT 7900]),
    (15554, [ENTRY 1 True, SHIFT 11235]),
    (15556, [ENTRY 1 True, REDUCE aux_sym_superclass_list_repeat1 2 0 36]),
    (15558, [ENTRY 1 True, SHIFT 1698]), (15560, [ENTRY 1 True, SHIFT 2701]),
    (15562, [ENTRY 1 True, SHIFT 1396]), (15564, [ENTRY 1 True, SHIFT 1707]),
    (15566, [ENTRY 1 True, SHIFT 2712]), (15568, [ENTRY 1 True, SHIFT 1705]),
    (15570, [ENTRY 1 True, SHIFT 2799]), (15572, [ENTRY 1 True, SHIFT 1374]),
    (15574, [ENTRY 1 True, SHIFT 2819]), (15576, [ENTRY 1 True, SHIFT 1722]),
    (15578, [ENTRY 1 True, SHIFT 2814])]"

definition parse_actions_51 :: "(nat \<times> TSParseActionEntry list) list" where "parse_actions_51 = [
    (15580, [ENTRY 1 True, SHIFT 1719]), (15582, [ENTRY 1 True, SHIFT 2818]),
    (15584, [ENTRY 1 True, SHIFT 1427]), (15586, [ENTRY 1 True, SHIFT 2760]),
    (15588, [ENTRY 1 True, SHIFT 1425]), (15590, [ENTRY 1 True, SHIFT 2761]),
    (15592, [ENTRY 1 True, SHIFT 4093]), (15594, [ENTRY 1 True, SHIFT 11169]),
    (15596, [ENTRY 1 True, SHIFT 1383]), (15598, [ENTRY 1 True, SHIFT 2123]),
    (15600, [ENTRY 1 True, SHIFT 1378]), (15602, [ENTRY 1 True, SHIFT 2129]),
    (15604, [ENTRY 1 True, SHIFT 7191]), (15606, [ENTRY 1 True, SHIFT 11152]),
    (15608, [ENTRY 1 True, SHIFT 4254]), (15610, [ENTRY 1 True, SHIFT 4100]),
    (15612, [ENTRY 1 True, SHIFT 7233]), (15614, [ENTRY 1 True, SHIFT 11138]),
    (15616, [ENTRY 1 True, SHIFT 4179]), (15618, [ENTRY 1 True, SHIFT 1464]),
    (15620, [ENTRY 1 True, SHIFT 2768]),
    (15622, [ENTRY 2 True, REDUCE aux_sym_assert_statement_repeat1 2 0 0, SHIFT_REPEAT 4194]),
    (15625, [ENTRY 1 True, SHIFT 1470]), (15627, [ENTRY 1 True, SHIFT 2769]),
    (15629, [ENTRY 1 True, SHIFT 1468]), (15631, [ENTRY 1 True, SHIFT 2770]),
    (15633, [ENTRY 1 True, SHIFT 1452]), (15635, [ENTRY 1 True, SHIFT 2359]),
    (15637, [ENTRY 1 True, SHIFT 1476]), (15639, [ENTRY 1 True, SHIFT 2772]),
    (15641, [ENTRY 1 True, SHIFT 7234]),
    (15643, [ENTRY 1 True, REDUCE aux_sym_type_parameter_repeat1 3 0 0]),
    (15645, [ENTRY 1 True, SHIFT 1474]), (15647, [ENTRY 1 True, SHIFT 2773]),
    (15649, [ENTRY 1 True, REDUCE sym__tuple_pattern 2 0 0]),
    (15651, [ENTRY 1 True, REDUCE sym__list_pattern 2 0 0]),
    (15653, [ENTRY 1 True, REDUCE sym_dict_pattern 2 0 0]), (15655, [ENTRY 1 True, SHIFT 7903]),
    (15657, [ENTRY 1 True, SHIFT 11034]), (15659, [ENTRY 1 True, SHIFT 1279]),
    (15661, [ENTRY 1 True, SHIFT 7822]), (15663, [ENTRY 1 True, SHIFT 1518]),
    (15665, [ENTRY 1 True, SHIFT 2806]), (15667, [ENTRY 1 True, SHIFT 7201]),
    (15669, [ENTRY 1 True, SHIFT 1512]), (15671, [ENTRY 1 True, SHIFT 2809]),
    (15673, [ENTRY 1 True, SHIFT 1714]), (15675, [ENTRY 1 True, SHIFT 10544]),
    (15677, [ENTRY 1 True, SHIFT 11312]), (15679, [ENTRY 1 True, SHIFT 12018]),
    (15681, [ENTRY 1 True, SHIFT 7781]), (15683, [ENTRY 1 True, SHIFT 1293]),
    (15685, [ENTRY 1 True, SHIFT 7901]), (15687, [ENTRY 1 True, SHIFT 11741]),
    (15689, [ENTRY 1 True, REDUCE sym__import_list 1 0 3]), (15691, [ENTRY 1 True, SHIFT 9654]),
    (15693, [ENTRY 1 True, SHIFT 12499]), (15695, [ENTRY 1 True, SHIFT 7485]),
    (15697, [ENTRY 1 True, SHIFT 11168]), (15699, [ENTRY 1 True, SHIFT 4137]),
    (15701, [ENTRY 1 True, SHIFT 7008]), (15703, [ENTRY 1 True, SHIFT 11022]),
    (15705, [ENTRY 1 True, SHIFT 7489]),
    (15707, [ENTRY 2 True, REDUCE aux_sym_import_prefix_repeat1 2 0 0, SHIFT_REPEAT 11169]),
    (15710, [ENTRY 1 True, SHIFT 1504]), (15712, [ENTRY 1 True, SHIFT 2777]),
    (15714, [ENTRY 1 True, SHIFT 1509]), (15716, [ENTRY 1 True, SHIFT 2778]),
    (15718, [ENTRY 1 True, SHIFT 1507]), (15720, [ENTRY 1 True, SHIFT 2779]),
    (15722, [ENTRY 1 True, SHIFT 1515]), (15724, [ENTRY 1 True, SHIFT 2781]),
    (15726, [ENTRY 1 True, SHIFT 1513]), (15728, [ENTRY 1 True, SHIFT 2782]),
    (15730, [ENTRY 1 True, REDUCE sym_class_pattern 6 0 0]), (15732, [ENTRY 1 True, SHIFT 1554]),
    (15734, [ENTRY 1 True, SHIFT 2786]), (15736, [ENTRY 1 True, SHIFT 1564]),
    (15738, [ENTRY 1 True, SHIFT 2787]),
    (15740, [ENTRY 1 True, REDUCE sym_type_alias_statement 4 1 40]),
    (15742, [ENTRY 1 True, SHIFT 1569]), (15744, [ENTRY 1 True, SHIFT 2788]),
    (15746, [ENTRY 1 True, SHIFT 1568]), (15748, [ENTRY 1 True, SHIFT 2789]),
    (15750, [ENTRY 2 True, REDUCE aux_sym_function_definition_repeat1 2 0 0, SHIFT_REPEAT 4113]),
    (15753, [ENTRY 1 True, SHIFT 1767]), (15755, [ENTRY 1 True, REDUCE sym_parameter 1 0 0]),
    (15757, [ENTRY 1 True, SHIFT 2843]), (15759, [ENTRY 1 True, SHIFT 4123]),
    (15761, [ENTRY 1 True, SHIFT 1421]), (15763, [ENTRY 1 True, SHIFT 1770]),
    (15765, [ENTRY 1 True, SHIFT 1651]), (15767, [ENTRY 1 True, SHIFT 1653]),
    (15769, [ENTRY 1 True, SHIFT 1482]), (15771, [ENTRY 1 True, SHIFT 1563]),
    (15773, [ENTRY 1 True, SHIFT 1656]), (15775, [ENTRY 1 True, SHIFT 1776]),
    (15777, [ENTRY 1 True, SHIFT 4144]), (15779, [ENTRY 1 True, SHIFT 1661]),
    (15781, [ENTRY 1 True, SHIFT 1594]), (15783, [ENTRY 1 True, SHIFT 1582]),
    (15785, [ENTRY 1 True, SHIFT 1666]), (15787, [ENTRY 1 True, SHIFT 1256]),
    (15789, [ENTRY 1 True, SHIFT 1668]), (15791, [ENTRY 1 True, SHIFT 1469]),
    (15793, [ENTRY 1 True, SHIFT 1673]), (15795, [ENTRY 1 True, SHIFT 1319]),
    (15797, [ENTRY 1 True, SHIFT 1773]), (15799, [ENTRY 1 True, SHIFT 1678]),
    (15801, [ENTRY 1 True, SHIFT 1596]), (15803, [ENTRY 1 True, SHIFT 1736]),
    (15805, [ENTRY 1 True, SHIFT 1681]), (15807, [ENTRY 1 True, SHIFT 1685]),
    (15809, [ENTRY 1 True, SHIFT 1687]), (15811, [ENTRY 1 True, SHIFT 1597]),
    (15813, [ENTRY 1 True, SHIFT 1690]), (15815, [ENTRY 1 True, SHIFT 1694]),
    (15817, [ENTRY 1 True, SHIFT 7895]), (15819, [ENTRY 1 True, SHIFT 4524]),
    (15821, [ENTRY 1 True, SHIFT 1697]), (15823, [ENTRY 1 True, SHIFT 1699]),
    (15825, [ENTRY 1 True, SHIFT 1702]), (15827, [ENTRY 1 True, SHIFT 1269]),
    (15829, [ENTRY 1 True, SHIFT 1573]), (15831, [ENTRY 1 True, SHIFT 1704]),
    (15833, [ENTRY 1 True, SHIFT 1706]), (15835, [ENTRY 1 True, SHIFT 6722]),
    (15837, [ENTRY 1 True, SHIFT 1457]),
    (15839, [ENTRY 1 True, REDUCE sym_print_statement 3 0 14]),
    (15841, [ENTRY 1 True, SHIFT 3947]), (15843, [ENTRY 1 True, SHIFT 1708]),
    (15845, [ENTRY 1 True, SHIFT 9723]), (15847, [ENTRY 1 True, SHIFT 12655]),
    (15849, [ENTRY 1 True, SHIFT 1276]), (15851, [ENTRY 1 True, SHIFT 1600]),
    (15853, [ENTRY 1 True, SHIFT 1280]), (15855, [ENTRY 1 True, SHIFT 12036]),
    (15857, [ENTRY 1 True, SHIFT 9486]), (15859, [ENTRY 1 True, SHIFT 9365]),
    (15861, [ENTRY 1 True, SHIFT 7875]), (15863, [ENTRY 1 True, SHIFT 1711]),
    (15865, [ENTRY 1 True, SHIFT 1715]), (15867, [ENTRY 1 True, SHIFT 1282]),
    (15869, [ENTRY 1 True, SHIFT 1717]), (15871, [ENTRY 1 True, SHIFT 1285]),
    (15873, [ENTRY 1 True, REDUCE sym_print_statement 3 (- 1) 15]),
    (15875, [ENTRY 1 True, SHIFT 3948]), (15877, [ENTRY 1 True, SHIFT 1721]),
    (15879, [ENTRY 1 False, REDUCE sym_import_prefix 1 0 0]), (15881, [ENTRY 1 True, SHIFT 11358])]"

definition parse_actions_52 :: "(nat \<times> TSParseActionEntry list) list" where "parse_actions_52 = [
    (15883, [ENTRY 1 True, SHIFT 1290]), (15885, [ENTRY 1 True, SHIFT 1709]),
    (15887, [ENTRY 1 True, SHIFT 1605]), (15889, [ENTRY 1 True, SHIFT 1723]),
    (15891, [ENTRY 1 True, SHIFT 1496]), (15893, [ENTRY 1 True, SHIFT 1462]),
    (15895, [ENTRY 1 True, SHIFT 1606]), (15897, [ENTRY 1 True, SHIFT 1726]),
    (15899, [ENTRY 1 True, SHIFT 1426]), (15901, [ENTRY 1 True, SHIFT 11056]),
    (15903, [ENTRY 1 True, SHIFT 7853]), (15905, [ENTRY 1 True, SHIFT 12647]),
    (15907, [ENTRY 1 True, SHIFT 1729]),
    (15909, [ENTRY 1 True, REDUCE aux_sym_case_clause_repeat1 2 0 0]),
    (15911, [ENTRY 1 True, SHIFT 1641]), (15913, [ENTRY 1 True, SHIFT 1783]),
    (15915, [ENTRY 1 True, REDUCE sym__as_pattern 3 0 0]), (15917, [ENTRY 1 True, SHIFT 1589]),
    (15919, [ENTRY 1 True, SHIFT 3933]), (15921, [ENTRY 1 True, SHIFT 1296]),
    (15923, [ENTRY 1 True, SHIFT 1734]), (15925, [ENTRY 1 True, SHIFT 1299]),
    (15927, [ENTRY 1 True, SHIFT 1301]), (15929, [ENTRY 1 True, SHIFT 1608]),
    (15931, [ENTRY 2 True, REDUCE aux_sym_case_clause_repeat1 2 0 0, SHIFT_REPEAT 7894]),
    (15934, [ENTRY 1 True, SHIFT 1304]), (15936, [ENTRY 1 True, SHIFT 1599]),
    (15938, [ENTRY 1 True, SHIFT 1309]), (15940, [ENTRY 1 True, SHIFT 1737]),
    (15942, [ENTRY 1 True, SHIFT 1459]), (15944, [ENTRY 1 True, SHIFT 1740]),
    (15946, [ENTRY 1 True, SHIFT 1314]), (15948, [ENTRY 1 True, SHIFT 1317]),
    (15950, [ENTRY 1 True, SHIFT 1438]), (15952, [ENTRY 1 True, SHIFT 1742]),
    (15954, [ENTRY 1 True, SHIFT 10666]), (15956, [ENTRY 1 True, SHIFT 11820]),
    (15958, [ENTRY 1 True, SHIFT 1745]), (15960, [ENTRY 1 True, SHIFT 1645]),
    (15962, [ENTRY 1 True, SHIFT 1321]), (15964, [ENTRY 1 True, SHIFT 1264]),
    (15966, [ENTRY 1 True, SHIFT 1747]), (15968, [ENTRY 1 True, SHIFT 1650]),
    (15970, [ENTRY 1 True, SHIFT 1324]), (15972, [ENTRY 1 True, SHIFT 1749]),
    (15974, [ENTRY 1 True, SHIFT 1752]), (15976, [ENTRY 1 True, SHIFT 1327]),
    (15978, [ENTRY 1 True, SHIFT 1329]), (15980, [ENTRY 1 True, SHIFT 1754]),
    (15982, [ENTRY 1 True, SHIFT 1331]), (15984, [ENTRY 1 True, SHIFT 1486]),
    (15986, [ENTRY 1 True, SHIFT 1611]), (15988, [ENTRY 1 True, SHIFT 1586]),
    (15990, [ENTRY 1 True, REDUCE aux_sym__import_list_repeat1 2 0 30]),
    (15992, [ENTRY 1 True, SHIFT 1808]), (15994, [ENTRY 1 True, SHIFT 1613]),
    (15996, [ENTRY 1 True, SHIFT 1466]), (15998, [ENTRY 1 True, SHIFT 1328]),
    (16000, [ENTRY 1 True, SHIFT 1758]), (16002, [ENTRY 1 True, SHIFT 1779]),
    (16004, [ENTRY 1 True, SHIFT 1760]), (16006, [ENTRY 1 True, SHIFT 1585]),
    (16008, [ENTRY 1 True, SHIFT 1275]), (16010, [ENTRY 1 True, SHIFT 1762]),
    (16012, [ENTRY 1 True, SHIFT 1728]), (16014, [ENTRY 1 True, SHIFT 1603]),
    (16016, [ENTRY 1 True, SHIFT 1675]), (16018, [ENTRY 1 True, SHIFT 1333]),
    (16020, [ENTRY 1 True, SHIFT 1323]), (16022, [ENTRY 1 True, SHIFT 1337]),
    (16024, [ENTRY 1 True, SHIFT 1764]), (16026, [ENTRY 1 True, SHIFT 1342]),
    (16028, [ENTRY 1 True, SHIFT 1344]), (16030, [ENTRY 1 True, SHIFT 1443]),
    (16032, [ENTRY 1 True, SHIFT 1347]), (16034, [ENTRY 1 True, SHIFT 1349]),
    (16036, [ENTRY 1 True, SHIFT 1765]), (16038, [ENTRY 1 True, SHIFT 1352]),
    (16040, [ENTRY 1 False, REDUCE aux_sym_import_prefix_repeat1 2 0 0]),
    (16042, [ENTRY 2 True, REDUCE aux_sym_import_prefix_repeat1 2 0 0, SHIFT_REPEAT 11358]),
    (16045, [ENTRY 1 True, SHIFT 1360]), (16047, [ENTRY 1 True, SHIFT 1362]),
    (16049, [ENTRY 1 True, SHIFT 1652]), (16051, [ENTRY 1 True, SHIFT 11376]),
    (16053, [ENTRY 1 True, SHIFT 7848]), (16055, [ENTRY 1 True, SHIFT 7855]),
    (16057, [ENTRY 1 True, SHIFT 12737]), (16059, [ENTRY 1 True, SHIFT 11377]),
    (16061, [ENTRY 1 True, SHIFT 1365]), (16063, [ENTRY 1 True, SHIFT 1768]),
    (16065, [ENTRY 1 True, SHIFT 1772]), (16067, [ENTRY 1 True, SHIFT 1777]),
    (16069, [ENTRY 1 True, SHIFT 1367]),
    (16071, [ENTRY 1 True, REDUCE aux_sym__import_list_repeat1 2 0 31]),
    (16073, [ENTRY 2 True, REDUCE aux_sym__import_list_repeat1 2 0 31, SHIFT_REPEAT 10066]),
    (16076, [ENTRY 1 True, SHIFT 1370]), (16078, [ENTRY 1 True, SHIFT 1373]),
    (16080, [ENTRY 1 True, SHIFT 1377]), (16082, [ENTRY 1 True, SHIFT 1242]),
    (16084, [ENTRY 1 True, SHIFT 1506]), (16086, [ENTRY 1 True, SHIFT 1493]),
    (16088, [ENTRY 1 True, SHIFT 1787]), (16090, [ENTRY 1 True, SHIFT 1578]),
    (16092, [ENTRY 1 True, SHIFT 1781]), (16094, [ENTRY 1 True, SHIFT 1784]),
    (16096, [ENTRY 1 True, SHIFT 1473]), (16098, [ENTRY 1 True, SHIFT 1786]),
    (16100, [ENTRY 1 True, SHIFT 1295]), (16102, [ENTRY 1 True, SHIFT 1456]),
    (16104, [ENTRY 1 True, SHIFT 1790]), (16106, [ENTRY 1 True, SHIFT 1616]),
    (16108, [ENTRY 1 True, SHIFT 1793]), (16110, [ENTRY 1 True, SHIFT 1795]),
    (16112, [ENTRY 1 True, SHIFT 1248]), (16114, [ENTRY 1 True, SHIFT 1508]),
    (16116, [ENTRY 1 True, SHIFT 1797]), (16118, [ENTRY 1 True, SHIFT 1607]),
    (16120, [ENTRY 1 True, SHIFT 1800]), (16122, [ENTRY 1 True, SHIFT 1483]),
    (16124, [ENTRY 1 True, SHIFT 1802]), (16126, [ENTRY 1 True, REDUCE sym__import_list 2 0 13]),
    (16128, [ENTRY 1 True, SHIFT 9669]), (16130, [ENTRY 1 True, SHIFT 1804]),
    (16132, [ENTRY 1 True, SHIFT 1384]), (16134, [ENTRY 1 True, SHIFT 1609]),
    (16136, [ENTRY 1 True, SHIFT 1385]), (16138, [ENTRY 1 True, SHIFT 1547]),
    (16140, [ENTRY 1 True, SHIFT 1388]), (16142, [ENTRY 1 True, SHIFT 1807]),
    (16144, [ENTRY 1 True, SHIFT 1390]), (16146, [ENTRY 1 True, SHIFT 1620]),
    (16148, [ENTRY 1 True, SHIFT 1391]), (16150, [ENTRY 1 True, SHIFT 1657]),
    (16152, [ENTRY 1 True, SHIFT 1792]), (16154, [ENTRY 1 True, SHIFT 1810]),
    (16156, [ENTRY 1 True, SHIFT 1581]), (16158, [ENTRY 1 True, SHIFT 1394]),
    (16160, [ENTRY 1 True, SHIFT 1399]), (16162, [ENTRY 1 True, SHIFT 1660]),
    (16164, [ENTRY 1 True, SHIFT 1305]), (16166, [ENTRY 1 True, SHIFT 1796]),
    (16168, [ENTRY 1 True, SHIFT 11722]), (16170, [ENTRY 1 True, SHIFT 7888]),
    (16172, [ENTRY 1 True, SHIFT 1814]), (16174, [ENTRY 1 True, SHIFT 1405]),
    (16176, [ENTRY 1 True, SHIFT 1335]), (16178, [ENTRY 1 True, SHIFT 1816]),
    (16180, [ENTRY 1 True, SHIFT 1817]), (16182, [ENTRY 1 True, SHIFT 1798]),
    (16184, [ENTRY 1 True, SHIFT 1819])]"

definition parse_actions_53 :: "(nat \<times> TSParseActionEntry list) list" where "parse_actions_53 = [
    (16186, [ENTRY 1 True, SHIFT 1820]), (16188, [ENTRY 1 True, SHIFT 1667]),
    (16190, [ENTRY 1 True, SHIFT 1572]), (16192, [ENTRY 1 True, SHIFT 1821]),
    (16194, [ENTRY 1 True, SHIFT 1623]), (16196, [ENTRY 1 True, SHIFT 1769]),
    (16198, [ENTRY 1 True, SHIFT 1822]), (16200, [ENTRY 1 True, SHIFT 1823]),
    (16202, [ENTRY 1 True, SHIFT 1803]), (16204, [ENTRY 1 True, SHIFT 1584]),
    (16206, [ENTRY 1 True, SHIFT 1626]), (16208, [ENTRY 1 True, SHIFT 1413]),
    (16210, [ENTRY 1 True, SHIFT 1340]), (16212, [ENTRY 1 True, SHIFT 1415]),
    (16214, [ENTRY 1 True, SHIFT 1416]), (16216, [ENTRY 1 True, SHIFT 1322]),
    (16218, [ENTRY 1 True, SHIFT 1824]), (16220, [ENTRY 1 True, SHIFT 1418]),
    (16222, [ENTRY 1 True, SHIFT 1419]), (16224, [ENTRY 1 True, SHIFT 1825]),
    (16226, [ENTRY 1 True, SHIFT 1420]), (16228, [ENTRY 1 True, SHIFT 1629]),
    (16230, [ENTRY 1 True, SHIFT 1826]), (16232, [ENTRY 1 True, SHIFT 1672]),
    (16234, [ENTRY 1 True, SHIFT 1325]), (16236, [ENTRY 1 True, SHIFT 1422]),
    (16238, [ENTRY 1 True, SHIFT 1424]), (16240, [ENTRY 1 True, SHIFT 1610]),
    (16242, [ENTRY 1 True, SHIFT 1730]), (16244, [ENTRY 1 True, SHIFT 1632]),
    (16246, [ENTRY 1 True, SHIFT 1827]), (16248, [ENTRY 1 True, SHIFT 1334]),
    (16250, [ENTRY 1 True, SHIFT 1612]), (16252, [ENTRY 1 True, SHIFT 1695]),
    (16254, [ENTRY 1 True, SHIFT 1828]), (16256, [ENTRY 1 True, SHIFT 1732]),
    (16258, [ENTRY 1 True, SHIFT 1447]), (16260, [ENTRY 1 True, SHIFT 1615]),
    (16262, [ENTRY 1 True, SHIFT 1254]), (16264, [ENTRY 1 True, SHIFT 1829]),
    (16266, [ENTRY 1 True, SHIFT 1830]), (16268, [ENTRY 1 True, SHIFT 1831]),
    (16270, [ENTRY 1 True, SHIFT 1537]), (16272, [ENTRY 1 True, SHIFT 1832]),
    (16274, [ENTRY 1 True, SHIFT 1345]), (16276, [ENTRY 1 True, SHIFT 1680]),
    (16278, [ENTRY 1 True, SHIFT 1833]), (16280, [ENTRY 1 True, SHIFT 9664]),
    (16282, [ENTRY 1 True, SHIFT 1636]), (16284, [ENTRY 1 True, SHIFT 1350]),
    (16286, [ENTRY 1 True, SHIFT 11914]), (16288, [ENTRY 1 True, SHIFT 9548]),
    (16290, [ENTRY 1 True, SHIFT 8665]), (16292, [ENTRY 1 True, SHIFT 1487]),
    (16294, [ENTRY 1 True, SHIFT 1501]), (16296, [ENTRY 1 True, SHIFT 1358]),
    (16298, [ENTRY 1 True, SHIFT 1735]), (16300, [ENTRY 1 True, SHIFT 1618]),
    (16302, [ENTRY 1 True, SHIFT 1361]), (16304, [ENTRY 1 True, SHIFT 1834]),
    (16306, [ENTRY 1 True, SHIFT 1366]), (16308, [ENTRY 1 True, SHIFT 1835]),
    (16310, [ENTRY 1 True, SHIFT 11232]), (16312, [ENTRY 1 True, SHIFT 7859]),
    (16314, [ENTRY 1 True, SHIFT 7883]), (16316, [ENTRY 1 True, SHIFT 11233]),
    (16318, [ENTRY 1 True, SHIFT 1836]), (16320, [ENTRY 1 True, SHIFT 1368]),
    (16322, [ENTRY 1 True, SHIFT 1588]), (16324, [ENTRY 1 True, SHIFT 1540]),
    (16326, [ENTRY 1 True, REDUCE aux_sym_global_statement_repeat1 2 0 0]),
    (16328, [ENTRY 2 True, REDUCE aux_sym_global_statement_repeat1 2 0 0, SHIFT_REPEAT 12478]),
    (16331, [ENTRY 1 True, SHIFT 1837]), (16333, [ENTRY 1 True, SHIFT 1639]),
    (16335, [ENTRY 1 True, SHIFT 1791]), (16337, [ENTRY 1 True, SHIFT 1838]),
    (16339, [ENTRY 1 True, SHIFT 1839]), (16341, [ENTRY 1 True, SHIFT 1693]),
    (16343, [ENTRY 1 True, SHIFT 1840]), (16345, [ENTRY 1 True, SHIFT 1700]),
    (16347, [ENTRY 1 True, SHIFT 11404]), (16349, [ENTRY 1 True, SHIFT 7880]),
    (16351, [ENTRY 1 True, SHIFT 1353]), (16353, [ENTRY 1 True, SHIFT 1841]),
    (16355, [ENTRY 1 True, SHIFT 1371]), (16357, [ENTRY 1 True, SHIFT 1363]),
    (16359, [ENTRY 1 True, SHIFT 1542]), (16361, [ENTRY 1 True, SHIFT 1649]),
    (16363, [ENTRY 1 True, SHIFT 1372]), (16365, [ENTRY 1 True, SHIFT 2170]),
    (16367, [ENTRY 1 True, SHIFT 1842]), (16369, [ENTRY 1 True, SHIFT 1710]),
    (16371, [ENTRY 1 True, SHIFT 1763]), (16373, [ENTRY 1 True, SHIFT 1232]),
    (16375, [ENTRY 1 True, SHIFT 1375]), (16377, [ENTRY 1 True, SHIFT 1771]),
    (16379, [ENTRY 1 True, SHIFT 1460]), (16381, [ENTRY 1 True, SHIFT 1725]),
    (16383, [ENTRY 1 True, SHIFT 1288]),
    (16385, [ENTRY 1 True, REDUCE aux_sym_print_statement_repeat1 2 0 38]),
    (16387, [ENTRY 2 True, REDUCE aux_sym_print_statement_repeat1 2 0 38, SHIFT_REPEAT 4189]),
    (16390, [ENTRY 1 True, SHIFT 1757]), (16392, [ENTRY 1 True, SHIFT 1780]),
    (16394, [ENTRY 1 True, SHIFT 1748]), (16396, [ENTRY 1 True, SHIFT 1595]),
    (16398, [ENTRY 1 True, REDUCE sym_assert_statement 4 0 0]),
    (16400, [ENTRY 1 True, SHIFT 1428]), (16402, [ENTRY 1 True, SHIFT 1621]),
    (16404, [ENTRY 1 True, SHIFT 1294]), (16406, [ENTRY 1 True, SHIFT 1369]),
    (16408, [ENTRY 1 True, SHIFT 1625]), (16410, [ENTRY 1 True, SHIFT 1525]),
    (16412, [ENTRY 1 True, SHIFT 1437]), (16414, [ENTRY 1 True, SHIFT 1440]),
    (16416, [ENTRY 1 True, SHIFT 1441]), (16418, [ENTRY 1 True, SHIFT 1450]),
    (16420, [ENTRY 1 True, SHIFT 1444]), (16422, [ENTRY 1 True, SHIFT 1446]),
    (16424, [ENTRY 1 True, SHIFT 1386]), (16426, [ENTRY 1 True, SHIFT 1627]),
    (16428, [ENTRY 1 True, SHIFT 1448]), (16430, [ENTRY 1 True, SHIFT 1811]),
    (16432, [ENTRY 1 True, SHIFT 1630]), (16434, [ENTRY 1 True, SHIFT 1654]),
    (16436, [ENTRY 1 True, SHIFT 1738]), (16438, [ENTRY 1 True, SHIFT 1451]),
    (16440, [ENTRY 1 True, SHIFT 1220]), (16442, [ENTRY 1 True, SHIFT 1634]),
    (16444, [ENTRY 1 True, SHIFT 7861]), (16446, [ENTRY 1 True, SHIFT 1454]),
    (16448, [ENTRY 1 True, SHIFT 1376]), (16450, [ENTRY 1 True, SHIFT 1458]),
    (16452, [ENTRY 1 True, SHIFT 1461]), (16454, [ENTRY 1 True, SHIFT 1463]),
    (16456, [ENTRY 1 True, SHIFT 1528]), (16458, [ENTRY 1 True, SHIFT 1465]),
    (16460, [ENTRY 1 True, SHIFT 5061]), (16462, [ENTRY 1 True, SHIFT 1471]),
    (16464, [ENTRY 1 True, SHIFT 1741]), (16466, [ENTRY 1 True, SHIFT 1389]),
    (16468, [ENTRY 1 True, SHIFT 1423]), (16470, [ENTRY 1 True, SHIFT 1556]),
    (16472, [ENTRY 1 True, SHIFT 1477]), (16474, [ENTRY 1 True, SHIFT 1637]),
    (16476, [ENTRY 1 True, REDUCE sym_global_statement 2 0 0]),
    (16478, [ENTRY 1 True, SHIFT 12478]),
    (16480, [ENTRY 1 True, REDUCE sym_nonlocal_statement 2 0 0]),
    (16482, [ENTRY 1 True, SHIFT 1743]), (16484, [ENTRY 1 True, SHIFT 1659]),
    (16486, [ENTRY 1 True, SHIFT 12123])]"

definition parse_actions_54 :: "(nat \<times> TSParseActionEntry list) list" where "parse_actions_54 = [
    (16488, [ENTRY 1 True, SHIFT 9480]), (16490, [ENTRY 1 True, SHIFT 9009]),
    (16492, [ENTRY 1 True, SHIFT 1533]), (16494, [ENTRY 1 True, SHIFT 1662]),
    (16496, [ENTRY 1 True, SHIFT 1664]), (16498, [ENTRY 1 True, SHIFT 1485]),
    (16500, [ENTRY 1 True, REDUCE sym_print_statement 2 0 0]), (16502, [ENTRY 1 True, SHIFT 3917]),
    (16504, [ENTRY 1 True, SHIFT 1545]), (16506, [ENTRY 1 True, SHIFT 1393]),
    (16508, [ENTRY 1 True, SHIFT 1488]), (16510, [ENTRY 1 True, SHIFT 1491]),
    (16512, [ENTRY 1 True, SHIFT 1669]), (16514, [ENTRY 1 True, SHIFT 1492]),
    (16516, [ENTRY 1 True, SHIFT 1495]), (16518, [ENTRY 1 True, SHIFT 5563]),
    (16520, [ENTRY 1 True, SHIFT 1638]), (16522, [ENTRY 1 True, SHIFT 11023]),
    (16524, [ENTRY 1 True, SHIFT 7850]), (16526, [ENTRY 1 True, SHIFT 1751]),
    (16528, [ENTRY 1 True, SHIFT 1640]), (16530, [ENTRY 1 True, SHIFT 1587]),
    (16532, [ENTRY 1 True, SHIFT 7876]), (16534, [ENTRY 1 True, SHIFT 11027]),
    (16536, [ENTRY 1 True, SHIFT 1643]), (16538, [ENTRY 1 True, SHIFT 1753]),
    (16540, [ENTRY 1 True, SHIFT 1590]), (16542, [ENTRY 1 True, SHIFT 1755]),
    (16544, [ENTRY 1 True, SHIFT 1298]), (16546, [ENTRY 1 True, SHIFT 1674]),
    (16548, [ENTRY 1 True, SHIFT 1453]), (16550, [ENTRY 1 True, SHIFT 1761]),
    (16552, [ENTRY 1 True, SHIFT 1676]), (16554, [ENTRY 1 True, SHIFT 1679]),
    (16556, [ENTRY 1 True, SHIFT 1574]), (16558, [ENTRY 1 True, SHIFT 1720]),
    (16560, [ENTRY 1 True, SHIFT 1233]), (16562, [ENTRY 1 True, SHIFT 1494]),
    (16564, [ENTRY 1 True, SHIFT 1521]), (16566, [ENTRY 1 True, SHIFT 1683]),
    (16568, [ENTRY 1 True, SHIFT 1497]), (16570, [ENTRY 1 True, SHIFT 1229]),
    (16572, [ENTRY 1 True, SHIFT 1688]), (16574, [ENTRY 1 True, SHIFT 1713]),
    (16576, [ENTRY 1 True, SHIFT 1655]), (16578, [ENTRY 1 True, SHIFT 1692]),
    (16580, [ENTRY 1 True, SHIFT 1696]), (16582, [ENTRY 1 True, SHIFT 1774]),
    (16584, [ENTRY 1 True, SHIFT 1805]), (16586, [ENTRY 1 True, SHIFT 11737]),
    (16588, [ENTRY 1 True, SHIFT 7867]), (16590, [ENTRY 1 True, SHIFT 7872]),
    (16592, [ENTRY 1 True, SHIFT 11738]), (16594, [ENTRY 1 True, SHIFT 1591]),
    (16596, [ENTRY 1 True, SHIFT 1401]), (16598, [ENTRY 1 True, SHIFT 1392]),
    (16600, [ENTRY 1 True, REDUCE sym_global_statement 3 0 0]),
    (16602, [ENTRY 1 True, REDUCE sym_nonlocal_statement 3 0 0]),
    (16604, [ENTRY 1 True, SHIFT 11627]), (16606, [ENTRY 1 True, SHIFT 7871]),
    (16608, [ENTRY 1 True, SHIFT 1265]), (16610, [ENTRY 1 True, SHIFT 1549]),
    (16612, [ENTRY 1 True, SHIFT 1746]),
    (16614, [ENTRY 1 True, REDUCE aux_sym_dict_pattern_repeat1 2 0 0]),
    (16616, [ENTRY 1 True, SHIFT 1553]), (16618, [ENTRY 1 True, SHIFT 1395]),
    (16620, [ENTRY 1 True, SHIFT 1397]), (16622, [ENTRY 1 True, SHIFT 3137]),
    (16624, [ENTRY 1 True, SHIFT 1818]), (16626, [ENTRY 1 True, SHIFT 1400]),
    (16628, [ENTRY 1 True, SHIFT 1724]), (16630, [ENTRY 1 True, SHIFT 1409]),
    (16632, [ENTRY 1 True, SHIFT 1775]), (16634, [ENTRY 1 True, SHIFT 1579]),
    (16636, [ENTRY 1 True, SHIFT 1815]), (16638, [ENTRY 1 True, SHIFT 1575]),
    (16640, [ENTRY 1 True, SHIFT 11951]), (16642, [ENTRY 1 True, SHIFT 9495]),
    (16644, [ENTRY 1 True, SHIFT 9026]), (16646, [ENTRY 1 True, SHIFT 1503]),
    (16648, [ENTRY 1 True, SHIFT 11878]), (16650, [ENTRY 1 True, SHIFT 11810]),
    (16652, [ENTRY 1 True, SHIFT 1414]), (16654, [ENTRY 1 True, SHIFT 1278]),
    (16656, [ENTRY 1 True, SHIFT 1498]), (16658, [ENTRY 1 True, SHIFT 1500]),
    (16660, [ENTRY 1 True, SHIFT 1502]), (16662, [ENTRY 1 True, SHIFT 1514]),
    (16664, [ENTRY 1 True, SHIFT 1505]), (16666, [ENTRY 1 True, SHIFT 1559]),
    (16668, [ENTRY 1 True, SHIFT 1302]), (16670, [ENTRY 1 True, SHIFT 1510]),
    (16672, [ENTRY 1 True, SHIFT 1417]), (16674, [ENTRY 1 True, SHIFT 1583]),
    (16676, [ENTRY 1 True, SHIFT 1766]),
    (16678, [ENTRY 2 True, REDUCE aux_sym__match_block_repeat1 2 0 100, SHIFT_REPEAT 7895]),
    (16681, [ENTRY 1 True, REDUCE aux_sym__match_block_repeat1 2 0 100]),
    (16683, [ENTRY 1 True, SHIFT 1516]), (16685, [ENTRY 1 True, SHIFT 1522]),
    (16687, [ENTRY 1 True, SHIFT 1619]), (16689, [ENTRY 1 True, SHIFT 1593]),
    (16691, [ENTRY 1 True, SHIFT 1523]), (16693, [ENTRY 1 True, SHIFT 1527]),
    (16695, [ENTRY 1 True, SHIFT 1530]), (16697, [ENTRY 1 True, SHIFT 1701]),
    (16699, [ENTRY 1 True, SHIFT 1532]), (16701, [ENTRY 1 True, SHIFT 1534]),
    (16703, [ENTRY 1 True, SHIFT 1536]), (16705, [ENTRY 1 True, SHIFT 1281]),
    (16707, [ENTRY 1 True, SHIFT 1539]), (16709, [ENTRY 1 True, SHIFT 1750]),
    (16711, [ENTRY 1 True, SHIFT 1543]), (16713, [ENTRY 1 True, SHIFT 1546]),
    (16715, [ENTRY 1 True, SHIFT 1550]), (16717, [ENTRY 1 True, SHIFT 1552]),
    (16719, [ENTRY 1 True, SHIFT 1646]), (16721, [ENTRY 1 True, SHIFT 1555]),
    (16723, [ENTRY 1 True, SHIFT 1557]), (16725, [ENTRY 1 True, SHIFT 1759]),
    (16727, [ENTRY 1 True, SHIFT 1561]), (16729, [ENTRY 1 True, SHIFT 1562]),
    (16731, [ENTRY 1 True, SHIFT 1560]), (16733, [ENTRY 1 True, SHIFT 1565]),
    (16735, [ENTRY 1 True, SHIFT 4481]), (16737, [ENTRY 1 True, SHIFT 1313]),
    (16739, [ENTRY 1 True, SHIFT 1570]), (16741, [ENTRY 1 True, SHIFT 1580]),
    (16743, [ENTRY 1 True, SHIFT 1576]), (16745, [ENTRY 1 True, REDUCE sym_exec_statement 5 0 8]),
    (16747, [ENTRY 1 True, SHIFT 1566]), (16749, [ENTRY 1 True, SHIFT 1718]),
    (16751, [ENTRY 1 True, SHIFT 1274]), (16753, [ENTRY 1 True, SHIFT 1663]),
    (16755, [ENTRY 1 True, SHIFT 1648]), (16757, [ENTRY 1 True, SHIFT 1691]),
    (16759, [ENTRY 1 True, SHIFT 1855]), (16761, [ENTRY 1 True, SHIFT 7879]),
    (16763, [ENTRY 1 True, SHIFT 7860]), (16765, [ENTRY 1 True, SHIFT 7915]),
    (16767, [ENTRY 1 True, SHIFT 11689]), (16769, [ENTRY 1 True, SHIFT 11910]),
    (16771, [ENTRY 1 True, SHIFT 7919]), (16773, [ENTRY 1 True, SHIFT 11702]),
    (16775, [ENTRY 1 True, SHIFT 3919]), (16777, [ENTRY 1 True, SHIFT 7130]),
    (16779, [ENTRY 1 True, REDUCE sym_parenthesized_list_splat 3 0 0]),
    (16781, [ENTRY 1 True, SHIFT 1852]), (16783, [ENTRY 1 True, SHIFT 4061]),
    (16785, [ENTRY 1 True, REDUCE sym_parenthesized_list_splat 3 0 36]),
    (16787, [ENTRY 2 True, REDUCE aux_sym__collection_elements_repeat1 2 0 0, SHIFT_REPEAT 3875])]"

definition parse_actions_55 :: "(nat \<times> TSParseActionEntry list) list" where "parse_actions_55 = [
    (16790, [ENTRY 1 True, SHIFT 10469]),
    (16792, [ENTRY 2 True, REDUCE aux_sym_type_parameter_repeat1 2 0 95, SHIFT_REPEAT 2102]),
    (16795, [ENTRY 1 True, REDUCE aux_sym_type_parameter_repeat1 2 0 95]),
    (16797, [ENTRY 1 True, SHIFT 6737]), (16799, [ENTRY 1 True, SHIFT 2055]),
    (16801, [ENTRY 1 True, SHIFT 8561]),
    (16803, [ENTRY 2 True, REDUCE aux_sym_parameter_list_repeat1 2 0 0, SHIFT_REPEAT 3667]),
    (16806, [ENTRY 1 True, SHIFT 3983]), (16808, [ENTRY 1 True, SHIFT 7289]),
    (16810, [ENTRY 1 True, SHIFT 2049]), (16812, [ENTRY 1 True, SHIFT 8563]),
    (16814, [ENTRY 1 True, SHIFT 4037]), (16816, [ENTRY 1 True, SHIFT 2082]),
    (16818, [ENTRY 1 True, SHIFT 8564]), (16820, [ENTRY 1 True, SHIFT 3713]),
    (16822, [ENTRY 1 True, SHIFT 7660]),
    (16824, [ENTRY 1 True, REDUCE sym__key_value_pattern 3 0 51]),
    (16826, [ENTRY 1 True, SHIFT 12468]), (16828, [ENTRY 1 True, SHIFT 4452]),
    (16830, [ENTRY 1 True, SHIFT 11786]), (16832, [ENTRY 1 True, SHIFT 1856]),
    (16834, [ENTRY 1 True, SHIFT 6736]), (16836, [ENTRY 1 True, REDUCE sym__patterns 1 0 0]),
    (16838, [ENTRY 1 True, SHIFT 7133]), (16840, [ENTRY 1 True, SHIFT 8322]),
    (16842, [ENTRY 1 True, SHIFT 1899]), (16844, [ENTRY 1 True, SHIFT 12373]),
    (16846, [ENTRY 1 True, SHIFT 12408]), (16848, [ENTRY 1 True, SHIFT 3869]),
    (16850, [ENTRY 1 True, SHIFT 3984]),
    (16852, [ENTRY 2 True, REDUCE aux_sym_case_clause_repeat1 2 0 0, SHIFT_REPEAT 7891]),
    (16855, [ENTRY 2 True, REDUCE aux_sym_dict_pattern_repeat1 2 0 221, SHIFT_REPEAT 7922]),
    (16858, [ENTRY 1 True, REDUCE aux_sym_dict_pattern_repeat1 2 0 221]),
    (16860, [ENTRY 1 True, SHIFT 8260]), (16862, [ENTRY 1 True, SHIFT 1942]),
    (16864, [ENTRY 1 True, SHIFT 4045]), (16866, [ENTRY 1 True, SHIFT 12194]),
    (16868, [ENTRY 1 True, SHIFT 7223]), (16870, [ENTRY 1 True, SHIFT 3816]),
    (16872, [ENTRY 1 True, SHIFT 8227]), (16874, [ENTRY 1 True, SHIFT 1960]),
    (16876, [ENTRY 1 True, SHIFT 11813]),
    (16878, [ENTRY 2 True, REDUCE aux_sym__collection_elements_repeat1 2 0 0, SHIFT_REPEAT 3861]),
    (16881, [ENTRY 1 True, SHIFT 3745]), (16883, [ENTRY 1 True, SHIFT 7003]),
    (16885, [ENTRY 1 False, SHIFT 12040]), (16887, [ENTRY 1 True, SHIFT 7774]),
    (16889, [ENTRY 1 True, SHIFT 2046]), (16891, [ENTRY 1 True, SHIFT 8522]),
    (16893, [ENTRY 1 True, SHIFT 4040]), (16895, [ENTRY 1 True, REDUCE sym_relative_import 2 0 0]),
    (16897, [ENTRY 1 True, SHIFT 3863]),
    (16899, [ENTRY 2 True, REDUCE aux_sym_unified_clause_repeat1 2 0 0, SHIFT_REPEAT 9556]),
    (16902, [ENTRY 1 True, REDUCE aux_sym_unified_clause_repeat1 2 0 0]),
    (16904, [ENTRY 1 True, SHIFT 7864]), (16906, [ENTRY 1 True, SHIFT 3907]),
    (16908, [ENTRY 1 True, SHIFT 9490]), (16910, [ENTRY 1 True, SHIFT 4060]),
    (16912, [ENTRY 2 True, REDUCE aux_sym_assert_statement_repeat1 2 0 0, SHIFT_REPEAT 4234]),
    (16915, [ENTRY 2 True, REDUCE aux_sym_result_convention_repeat1 2 0 0, SHIFT_REPEAT 9563]),
    (16918, [ENTRY 1 True, REDUCE aux_sym_result_convention_repeat1 2 0 0]),
    (16920, [ENTRY 1 True, SHIFT 3819]), (16922, [ENTRY 1 True, SHIFT 7874]),
    (16924, [ENTRY 1 True, SHIFT 3820]), (16926, [ENTRY 1 True, SHIFT 7896]),
    (16928, [ENTRY 1 True, REDUCE sym__parameters 1 0 0]), (16930, [ENTRY 1 True, SHIFT 3746]),
    (16932, [ENTRY 1 True, SHIFT 7014]), (16934, [ENTRY 1 True, SHIFT 3987]),
    (16936, [ENTRY 1 True, SHIFT 7175]), (16938, [ENTRY 1 True, SHIFT 3747]),
    (16940, [ENTRY 1 True, SHIFT 7050]),
    (16942, [ENTRY 1 True, REDUCE aux_sym_function_type_repeat1 2 0 118]),
    (16944, [ENTRY 2 True, REDUCE aux_sym_function_type_repeat1 2 0 118, SHIFT_REPEAT 1991]),
    (16947, [ENTRY 1 True, SHIFT 4002]), (16949, [ENTRY 1 True, SHIFT 3748]),
    (16951, [ENTRY 1 True, SHIFT 7056]), (16953, [ENTRY 1 True, SHIFT 3695]),
    (16955, [ENTRY 1 True, SHIFT 7057]), (16957, [ENTRY 1 True, SHIFT 3666]),
    (16959, [ENTRY 1 True, SHIFT 2058]), (16961, [ENTRY 1 True, SHIFT 8303]),
    (16963, [ENTRY 1 True, SHIFT 2060]), (16965, [ENTRY 1 True, SHIFT 8307]),
    (16967, [ENTRY 1 True, SHIFT 3754]), (16969, [ENTRY 1 True, SHIFT 2062]),
    (16971, [ENTRY 1 True, SHIFT 8309]), (16973, [ENTRY 1 True, SHIFT 4063]),
    (16975, [ENTRY 1 True, SHIFT 9511]), (16977, [ENTRY 1 True, SHIFT 1913]),
    (16979, [ENTRY 1 True, SHIFT 7897]), (16981, [ENTRY 1 True, SHIFT 3894]),
    (16983, [ENTRY 1 True, REDUCE sym_self_parameter 2 0 0]), (16985, [ENTRY 1 True, SHIFT 2845]),
    (16987, [ENTRY 1 True, SHIFT 2080]), (16989, [ENTRY 1 True, SHIFT 8492]),
    (16991, [ENTRY 1 True, SHIFT 2067]), (16993, [ENTRY 1 True, SHIFT 8330]),
    (16995, [ENTRY 1 True, SHIFT 7907]), (16997, [ENTRY 1 True, SHIFT 11011]),
    (16999, [ENTRY 2 True, REDUCE aux_sym__simple_statements_repeat1 2 0 0, SHIFT_REPEAT 1859]),
    (17002, [ENTRY 1 True, REDUCE aux_sym__simple_statements_repeat1 2 0 0]),
    (17004, [ENTRY 1 True, SHIFT 2069]), (17006, [ENTRY 1 True, SHIFT 8335]),
    (17008, [ENTRY 1 True, SHIFT 11816]), (17010, [ENTRY 1 True, SHIFT 3662]),
    (17012, [ENTRY 1 True, SHIFT 12727]), (17014, [ENTRY 1 True, SHIFT 2087]),
    (17016, [ENTRY 1 True, SHIFT 8509]), (17018, [ENTRY 1 True, SHIFT 8205]),
    (17020, [ENTRY 1 True, SHIFT 1902]), (17022, [ENTRY 1 True, SHIFT 9504]),
    (17024, [ENTRY 1 True, SHIFT 8367]), (17026, [ENTRY 1 True, SHIFT 1898]),
    (17028, [ENTRY 1 True, SHIFT 9516]), (17030, [ENTRY 1 True, SHIFT 1915]),
    (17032, [ENTRY 1 True, SHIFT 9494]), (17034, [ENTRY 1 True, SHIFT 9658]),
    (17036, [ENTRY 1 True, SHIFT 9523]), (17038, [ENTRY 1 True, SHIFT 1916]),
    (17040, [ENTRY 1 True, SHIFT 7847]), (17042, [ENTRY 1 True, SHIFT 2071]),
    (17044, [ENTRY 1 True, SHIFT 8339]), (17046, [ENTRY 1 True, SHIFT 1851]),
    (17048, [ENTRY 1 True, SHIFT 2072]), (17050, [ENTRY 1 True, SHIFT 8341]),
    (17052, [ENTRY 2 True, REDUCE aux_sym__patterns_repeat1 2 0 0, SHIFT_REPEAT 6756]),
    (17055, [ENTRY 1 True, SHIFT 7179]), (17057, [ENTRY 1 True, SHIFT 2075]),
    (17059, [ENTRY 1 True, SHIFT 8343]), (17061, [ENTRY 1 True, SHIFT 7914]),
    (17063, [ENTRY 1 True, SHIFT 11042]), (17065, [ENTRY 1 True, SHIFT 7910]),
    (17067, [ENTRY 1 True, SHIFT 11234]), (17069, [ENTRY 1 True, SHIFT 9547]),
    (17071, [ENTRY 1 True, SHIFT 3885]), (17073, [ENTRY 1 True, SHIFT 1551]),
    (17075, [ENTRY 1 True, SHIFT 9533]), (17077, [ENTRY 1 True, SHIFT 1917]),
    (17079, [ENTRY 1 True, SHIFT 2083]), (17081, [ENTRY 1 True, SHIFT 8494]),
    (17083, [ENTRY 1 True, SHIFT 2077]), (17085, [ENTRY 1 True, SHIFT 8481]),
    (17087, [ENTRY 1 True, SHIFT 1844]),
    (17089, [ENTRY 2 True, REDUCE aux_sym_capture_list_repeat1 2 0 0, SHIFT_REPEAT 3969]),
    (17092, [ENTRY 1 True, SHIFT 2078]), (17094, [ENTRY 1 True, SHIFT 8485]),
    (17096, [ENTRY 1 True, SHIFT 12131]), (17098, [ENTRY 1 True, SHIFT 12583]),
    (17100, [ENTRY 1 True, SHIFT 12662])]"

definition parse_actions_56 :: "(nat \<times> TSParseActionEntry list) list" where "parse_actions_56 = [
    (17102, [ENTRY 2 True, REDUCE aux_sym__patterns_repeat1 2 0 0, SHIFT_REPEAT 6757]),
    (17105, [ENTRY 1 True, SHIFT 9484]), (17107, [ENTRY 1 True, SHIFT 8122]),
    (17109, [ENTRY 1 True, SHIFT 1954]), (17111, [ENTRY 1 True, SHIFT 8127]),
    (17113, [ENTRY 1 True, SHIFT 1956]), (17115, [ENTRY 1 True, SHIFT 8134]),
    (17117, [ENTRY 1 True, SHIFT 1958]), (17119, [ENTRY 1 True, SHIFT 9467]),
    (17121, [ENTRY 1 True, SHIFT 8141]), (17123, [ENTRY 1 True, SHIFT 1959]),
    (17125, [ENTRY 1 True, SHIFT 7856]), (17127, [ENTRY 1 True, SHIFT 7857]),
    (17129, [ENTRY 1 True, SHIFT 1909]), (17131, [ENTRY 1 True, SHIFT 3781]),
    (17133, [ENTRY 1 True, SHIFT 7905]), (17135, [ENTRY 1 True, SHIFT 11392]),
    (17137, [ENTRY 2 True, REDUCE aux_sym_superclass_list_repeat1 2 0 0, SHIFT_REPEAT 3846]),
    (17140, [ENTRY 1 True, SHIFT 7913]), (17142, [ENTRY 1 True, SHIFT 11402]),
    (17144, [ENTRY 2 True, REDUCE aux_sym_global_statement_repeat1 2 0 0, SHIFT_REPEAT 12637]),
    (17147, [ENTRY 2 True, REDUCE aux_sym_argument_list_repeat1 2 0 0, SHIFT_REPEAT 3841]),
    (17150, [ENTRY 1 True, SHIFT 2059]), (17152, [ENTRY 1 True, SHIFT 8499]),
    (17154, [ENTRY 1 True, SHIFT 2079]), (17156, [ENTRY 1 True, SHIFT 8207]),
    (17158, [ENTRY 1 True, SHIFT 3715]), (17160, [ENTRY 1 True, SHIFT 7433]),
    (17162, [ENTRY 1 True, SHIFT 1918]), (17164, [ENTRY 1 True, SHIFT 3782]),
    (17166, [ENTRY 1 True, SHIFT 4139]), (17168, [ENTRY 1 True, SHIFT 3927]),
    (17170, [ENTRY 1 True, REDUCE sym_with_clause 1 0 0]), (17172, [ENTRY 1 True, SHIFT 7870]),
    (17174, [ENTRY 1 True, SHIFT 1928]), (17176, [ENTRY 1 True, SHIFT 2032]),
    (17178, [ENTRY 1 True, SHIFT 8547]),
    (17180, [ENTRY 2 True, REDUCE aux_sym_with_clause_repeat1 2 0 0, SHIFT_REPEAT 4028]),
    (17183, [ENTRY 1 True, REDUCE aux_sym_with_clause_repeat1 2 0 0]),
    (17185, [ENTRY 1 True, SHIFT 1938]), (17187, [ENTRY 1 True, SHIFT 3878]),
    (17189, [ENTRY 1 True, SHIFT 3877]), (17191, [ENTRY 1 True, SHIFT 6731]),
    (17193, [ENTRY 1 True, SHIFT 1950]), (17195, [ENTRY 1 True, SHIFT 8279]),
    (17197, [ENTRY 1 True, SHIFT 1946]), (17199, [ENTRY 1 True, SHIFT 7898]),
    (17201, [ENTRY 1 True, SHIFT 3735]), (17203, [ENTRY 1 True, SHIFT 6789]),
    (17205, [ENTRY 1 True, SHIFT 1854]), (17207, [ENTRY 1 True, SHIFT 4095]),
    (17209, [ENTRY 1 True, SHIFT 3821]), (17211, [ENTRY 1 True, SHIFT 3952]),
    (17213, [ENTRY 1 True, SHIFT 1222]), (17215, [ENTRY 1 False, SHIFT 11993]),
    (17217, [ENTRY 1 True, SHIFT 2034]), (17219, [ENTRY 1 True, SHIFT 8571]),
    (17221, [ENTRY 1 True, SHIFT 11943]), (17223, [ENTRY 1 True, SHIFT 12632]),
    (17225, [ENTRY 1 True, SHIFT 7093]), (17227, [ENTRY 1 True, SHIFT 3769]),
    (17229, [ENTRY 1 True, SHIFT 3825]), (17231, [ENTRY 1 True, SHIFT 12477]),
    (17233, [ENTRY 1 True, SHIFT 3955]), (17235, [ENTRY 1 True, SHIFT 3790]),
    (17237, [ENTRY 1 True, SHIFT 3924]), (17239, [ENTRY 1 True, SHIFT 3687]),
    (17241, [ENTRY 1 True, SHIFT 7247]), (17243, [ENTRY 1 True, SHIFT 3901]),
    (17245, [ENTRY 1 True, SHIFT 7425]), (17247, [ENTRY 1 True, SHIFT 7510]),
    (17249, [ENTRY 1 True, SHIFT 1857]), (17251, [ENTRY 1 True, SHIFT 7239]),
    (17253, [ENTRY 1 True, SHIFT 3817]), (17255, [ENTRY 1 True, SHIFT 10669]),
    (17257, [ENTRY 1 True, SHIFT 3688]), (17259, [ENTRY 1 True, SHIFT 7250]),
    (17261, [ENTRY 1 True, SHIFT 3694]), (17263, [ENTRY 1 True, SHIFT 7791]),
    (17265, [ENTRY 1 True, SHIFT 3792]), (17267, [ENTRY 1 True, SHIFT 3956]),
    (17269, [ENTRY 1 True, SHIFT 3852]), (17271, [ENTRY 1 True, SHIFT 3912]),
    (17273, [ENTRY 1 True, SHIFT 7570]), (17275, [ENTRY 1 True, SHIFT 3752]),
    (17277, [ENTRY 1 True, SHIFT 3709]), (17279, [ENTRY 1 True, SHIFT 7611]),
    (17281, [ENTRY 1 True, SHIFT 3793]), (17283, [ENTRY 1 True, SHIFT 7195]),
    (17285, [ENTRY 1 True, SHIFT 3798]), (17287, [ENTRY 1 True, SHIFT 3689]),
    (17289, [ENTRY 1 True, SHIFT 7252]), (17291, [ENTRY 1 True, SHIFT 9466]),
    (17293, [ENTRY 1 True, SHIFT 2025]), (17295, [ENTRY 1 True, SHIFT 8572]),
    (17297, [ENTRY 1 False, REDUCE sym_relative_import 1 0 0]),
    (17299, [ENTRY 1 True, SHIFT 1277]), (17301, [ENTRY 1 True, SHIFT 6972]),
    (17303, [ENTRY 1 True, SHIFT 3759]), (17305, [ENTRY 1 True, SHIFT 11894]),
    (17307, [ENTRY 1 True, SHIFT 3700]), (17309, [ENTRY 1 True, SHIFT 7169]),
    (17311, [ENTRY 1 True, SHIFT 5175]), (17313, [ENTRY 1 True, SHIFT 11660]),
    (17315, [ENTRY 1 True, SHIFT 3755]), (17317, [ENTRY 1 True, SHIFT 3931]),
    (17319, [ENTRY 1 True, SHIFT 7007]), (17321, [ENTRY 1 True, SHIFT 12705]),
    (17323, [ENTRY 1 True, SHIFT 12347]), (17325, [ENTRY 1 True, SHIFT 1906]),
    (17327, [ENTRY 1 True, SHIFT 4027]), (17329, [ENTRY 1 True, SHIFT 3690]),
    (17331, [ENTRY 1 True, SHIFT 7253]), (17333, [ENTRY 1 True, SHIFT 7636]),
    (17335, [ENTRY 1 True, SHIFT 3776]), (17337, [ENTRY 1 True, SHIFT 3789]),
    (17339, [ENTRY 1 True, SHIFT 3822]), (17341, [ENTRY 1 True, SHIFT 3701]),
    (17343, [ENTRY 1 True, SHIFT 7266]), (17345, [ENTRY 1 True, SHIFT 3702]),
    (17347, [ENTRY 1 True, SHIFT 7270]), (17349, [ENTRY 1 True, SHIFT 3705]),
    (17351, [ENTRY 1 True, SHIFT 7274]), (17353, [ENTRY 1 True, SHIFT 3723]),
    (17355, [ENTRY 1 True, SHIFT 7275]),
    (17357, [ENTRY 2 True, REDUCE aux_sym_assert_statement_repeat1 2 0 0, SHIFT_REPEAT 4114]),
    (17360, [ENTRY 1 True, SHIFT 2088]), (17362, [ENTRY 1 True, SHIFT 8606]),
    (17364, [ENTRY 2 True, REDUCE aux_sym__parameters_repeat1 2 0 0, SHIFT_REPEAT 7904]),
    (17367, [ENTRY 1 True, REDUCE aux_sym__parameters_repeat1 2 0 0]),
    (17369, [ENTRY 1 True, SHIFT 2089]), (17371, [ENTRY 1 True, SHIFT 8608]),
    (17373, [ENTRY 1 True, SHIFT 3677]), (17375, [ENTRY 1 True, SHIFT 7198]),
    (17377, [ENTRY 1 True, SHIFT 2090]), (17379, [ENTRY 1 True, SHIFT 8609]),
    (17381, [ENTRY 1 True, SHIFT 2076]), (17383, [ENTRY 1 True, SHIFT 8506]),
    (17385, [ENTRY 1 True, SHIFT 4001]), (17387, [ENTRY 1 True, SHIFT 2029]),
    (17389, [ENTRY 1 True, SHIFT 8525]), (17391, [ENTRY 1 True, SHIFT 8294]),
    (17393, [ENTRY 1 True, SHIFT 1947]), (17395, [ENTRY 1 True, SHIFT 9454]),
    (17397, [ENTRY 1 True, SHIFT 1922]), (17399, [ENTRY 1 True, SHIFT 9756]),
    (17401, [ENTRY 1 True, SHIFT 3724]), (17403, [ENTRY 1 True, SHIFT 6781]),
    (17405, [ENTRY 1 True, SHIFT 8216]), (17407, [ENTRY 1 True, SHIFT 1891])]"

definition parse_actions_57 :: "(nat \<times> TSParseActionEntry list) list" where "parse_actions_57 = [
    (17409, [ENTRY 1 True, SHIFT 3904]), (17411, [ENTRY 1 True, SHIFT 7746]),
    (17413, [ENTRY 1 True, SHIFT 3731]), (17415, [ENTRY 1 True, SHIFT 7640]),
    (17417, [ENTRY 1 True, SHIFT 2039]), (17419, [ENTRY 1 True, SHIFT 8527]),
    (17421, [ENTRY 2 True, REDUCE aux_sym_dictionary_repeat1 2 0 0, SHIFT_REPEAT 3891]),
    (17424, [ENTRY 1 True, REDUCE aux_sym_dictionary_repeat1 2 0 0]),
    (17426, [ENTRY 1 True, SHIFT 2095]), (17428, [ENTRY 1 True, SHIFT 8530]),
    (17430, [ENTRY 1 True, SHIFT 8225]), (17432, [ENTRY 1 True, SHIFT 1893]),
    (17434, [ENTRY 1 True, SHIFT 3722]), (17436, [ENTRY 1 True, SHIFT 7441]),
    (17438, [ENTRY 1 True, SHIFT 3672]), (17440, [ENTRY 1 True, SHIFT 7801]),
    (17442, [ENTRY 1 True, SHIFT 3686]), (17444, [ENTRY 1 True, SHIFT 7242]),
    (17446, [ENTRY 1 True, SHIFT 2064]), (17448, [ENTRY 1 True, SHIFT 8580]),
    (17450, [ENTRY 1 True, SHIFT 2065]), (17452, [ENTRY 1 True, SHIFT 8582]),
    (17454, [ENTRY 1 True, SHIFT 7890]), (17456, [ENTRY 1 True, SHIFT 7918]),
    (17458, [ENTRY 1 True, SHIFT 11029]), (17460, [ENTRY 1 True, SHIFT 9693]),
    (17462, [ENTRY 1 True, SHIFT 2098]), (17464, [ENTRY 1 True, SHIFT 8587]),
    (17466, [ENTRY 1 True, SHIFT 2097]), (17468, [ENTRY 1 True, SHIFT 8535]),
    (17470, [ENTRY 2 True, REDUCE aux_sym_match_statement_repeat1 2 0 46, SHIFT_REPEAT 4202]),
    (17473, [ENTRY 1 True, REDUCE aux_sym_match_statement_repeat1 2 0 46]),
    (17475, [ENTRY 1 True, SHIFT 3881]), (17477, [ENTRY 1 True, REDUCE sym_self_parameter 1 0 0]),
    (17479, [ENTRY 1 True, SHIFT 2842]), (17481, [ENTRY 1 True, SHIFT 7889]),
    (17483, [ENTRY 1 True, SHIFT 3696]), (17485, [ENTRY 1 True, SHIFT 7803]),
    (17487, [ENTRY 1 True, SHIFT 7912]), (17489, [ENTRY 1 True, SHIFT 11380]),
    (17491, [ENTRY 1 True, REDUCE sym_exec_statement 2 0 8]), (17493, [ENTRY 1 True, SHIFT 4069]),
    (17495, [ENTRY 1 True, SHIFT 1850]), (17497, [ENTRY 1 True, SHIFT 3999]),
    (17499, [ENTRY 1 True, SHIFT 4036]), (17501, [ENTRY 1 True, SHIFT 1904]),
    (17503, [ENTRY 1 True, SHIFT 3697]), (17505, [ENTRY 1 True, SHIFT 7805]),
    (17507, [ENTRY 1 True, SHIFT 7892]), (17509, [ENTRY 1 True, SHIFT 9482]),
    (17511, [ENTRY 1 True, SHIFT 8346]), (17513, [ENTRY 1 True, SHIFT 1908]),
    (17515, [ENTRY 1 True, SHIFT 1849]), (17517, [ENTRY 1 True, SHIFT 12250]),
    (17519, [ENTRY 2 True, REDUCE aux_sym__import_list_repeat1 2 0 31, SHIFT_REPEAT 9978]),
    (17522, [ENTRY 1 True, SHIFT 3779]), (17524, [ENTRY 1 True, SHIFT 4023]),
    (17526, [ENTRY 1 True, SHIFT 12692]), (17528, [ENTRY 1 True, SHIFT 12287]),
    (17530, [ENTRY 1 True, SHIFT 9472]), (17532, [ENTRY 1 True, SHIFT 1924]),
    (17534, [ENTRY 1 True, SHIFT 7061]), (17536, [ENTRY 1 True, SHIFT 3958]),
    (17538, [ENTRY 1 True, SHIFT 9502]), (17540, [ENTRY 1 True, SHIFT 1926]),
    (17542, [ENTRY 1 True, SHIFT 2100]), (17544, [ENTRY 1 True, SHIFT 8552]),
    (17546, [ENTRY 1 True, SHIFT 2066]), (17548, [ENTRY 1 True, SHIFT 8616]),
    (17550, [ENTRY 1 True, SHIFT 2024]), (17552, [ENTRY 1 True, SHIFT 8556]),
    (17554, [ENTRY 1 True, SHIFT 4046]), (17556, [ENTRY 1 True, SHIFT 3783]),
    (17558, [ENTRY 1 True, SHIFT 7920]), (17560, [ENTRY 1 True, SHIFT 11740]),
    (17562, [ENTRY 1 True, SHIFT 9488]), (17564, [ENTRY 1 True, SHIFT 3890]),
    (17566, [ENTRY 1 True, SHIFT 3698]), (17568, [ENTRY 1 True, SHIFT 7806]),
    (17570, [ENTRY 1 True, SHIFT 9546]), (17572, [ENTRY 1 True, SHIFT 1927]),
    (17574, [ENTRY 1 True, SHIFT 2026]), (17576, [ENTRY 1 True, SHIFT 8591]),
    (17578, [ENTRY 1 True, SHIFT 3733]), (17580, [ENTRY 1 True, SHIFT 7650]),
    (17582, [ENTRY 1 True, SHIFT 3803]), (17584, [ENTRY 1 True, SHIFT 2027]),
    (17586, [ENTRY 1 True, SHIFT 8596]), (17588, [ENTRY 1 True, SHIFT 7852]),
    (17590, [ENTRY 1 True, SHIFT 7858]), (17592, [ENTRY 1 True, SHIFT 7902]),
    (17594, [ENTRY 1 True, SHIFT 11613]), (17596, [ENTRY 1 True, SHIFT 7909]),
    (17598, [ENTRY 1 True, SHIFT 11621]), (17600, [ENTRY 1 True, SHIFT 3850]),
    (17602, [ENTRY 1 True, SHIFT 3663]), (17604, [ENTRY 1 True, SHIFT 2028]),
    (17606, [ENTRY 1 True, SHIFT 8553]), (17608, [ENTRY 1 True, SHIFT 3734]),
    (17610, [ENTRY 1 True, SHIFT 7657]), (17612, [ENTRY 1 True, SHIFT 7863]),
    (17614, [ENTRY 1 True, SHIFT 12401]), (17616, [ENTRY 1 True, SHIFT 9464]),
    (17618, [ENTRY 2 True, REDUCE aux_sym_struct_literal_repeat1 2 0 0, SHIFT_REPEAT 4030]),
    (17621, [ENTRY 1 True, SHIFT 6732]), (17623, [ENTRY 1 True, SHIFT 1853]),
    (17625, [ENTRY 1 True, SHIFT 12416]),
    (17627, [ENTRY 2 True, REDUCE aux_sym__collection_elements_repeat1 2 0 0, SHIFT_REPEAT 3855]),
    (17630, [ENTRY 2 True, REDUCE aux_sym__parameters_repeat1 2 0 0, SHIFT_REPEAT 7908]),
    (17633, [ENTRY 1 True, SHIFT 3893]), (17635, [ENTRY 1 True, SHIFT 3989]),
    (17637, [ENTRY 1 True, SHIFT 7600]), (17639, [ENTRY 1 True, SHIFT 7602]),
    (17641, [ENTRY 1 True, SHIFT 3879]), (17643, [ENTRY 1 True, SHIFT 3804]),
    (17645, [ENTRY 1 True, SHIFT 4018]), (17647, [ENTRY 1 True, SHIFT 12102]),
    (17649, [ENTRY 1 True, SHIFT 3872]), (17651, [ENTRY 1 True, SHIFT 3902]),
    (17653, [ENTRY 1 True, SHIFT 3929]), (17655, [ENTRY 1 True, SHIFT 3678]),
    (17657, [ENTRY 1 True, SHIFT 7206]), (17659, [ENTRY 1 True, SHIFT 6977]),
    (17661, [ENTRY 1 True, SHIFT 3778]), (17663, [ENTRY 1 True, SHIFT 3730]),
    (17665, [ENTRY 1 True, SHIFT 6783]), (17667, [ENTRY 1 True, SHIFT 2070]),
    (17669, [ENTRY 1 True, SHIFT 8576]), (17671, [ENTRY 1 True, SHIFT 3682]),
    (17673, [ENTRY 1 True, SHIFT 7488]), (17675, [ENTRY 1 True, SHIFT 2844]),
    (17677, [ENTRY 1 True, SHIFT 3739]), (17679, [ENTRY 1 True, SHIFT 7661]),
    (17681, [ENTRY 1 True, SHIFT 4000]), (17683, [ENTRY 1 True, SHIFT 3740]),
    (17685, [ENTRY 1 True, SHIFT 7662]), (17687, [ENTRY 1 True, SHIFT 3786]),
    (17689, [ENTRY 1 True, SHIFT 3787]), (17691, [ENTRY 1 True, SHIFT 8270]),
    (17693, [ENTRY 1 True, SHIFT 1944]), (17695, [ENTRY 1 True, SHIFT 3683]),
    (17697, [ENTRY 1 True, SHIFT 7492]), (17699, [ENTRY 1 True, SHIFT 3691]),
    (17701, [ENTRY 1 True, SHIFT 7494]), (17703, [ENTRY 1 True, SHIFT 3937]),
    (17705, [ENTRY 1 True, SHIFT 3692]), (17707, [ENTRY 1 True, SHIFT 7496]),
    (17709, [ENTRY 1 True, SHIFT 3699]), (17711, [ENTRY 1 True, SHIFT 7497]),
    (17713, [ENTRY 1 True, SHIFT 3679])]"

definition parse_actions_58 :: "(nat \<times> TSParseActionEntry list) list" where "parse_actions_58 = [
    (17715, [ENTRY 1 True, SHIFT 7208]), (17717, [ENTRY 1 True, SHIFT 8114]),
    (17719, [ENTRY 1 True, SHIFT 1932]), (17721, [ENTRY 1 True, SHIFT 3957]),
    (17723, [ENTRY 1 True, SHIFT 3828]), (17725, [ENTRY 1 True, SHIFT 3680]),
    (17727, [ENTRY 1 True, SHIFT 7210]), (17729, [ENTRY 1 True, SHIFT 8162]),
    (17731, [ENTRY 1 True, SHIFT 1934]), (17733, [ENTRY 1 True, REDUCE sym_aliased_import 3 0 32]),
    (17735, [ENTRY 1 True, SHIFT 8176]), (17737, [ENTRY 1 True, SHIFT 1936]),
    (17739, [ENTRY 1 True, SHIFT 8190]), (17741, [ENTRY 1 True, SHIFT 1937]),
    (17743, [ENTRY 1 True, SHIFT 3681]), (17745, [ENTRY 1 True, SHIFT 7211]),
    (17747, [ENTRY 1 True, SHIFT 4016]), (17749, [ENTRY 1 True, SHIFT 3736]),
    (17751, [ENTRY 1 True, SHIFT 6793]),
    (17753, [ENTRY 2 True, REDUCE aux_sym_assert_statement_repeat1 2 0 0, SHIFT_REPEAT 4205]),
    (17756, [ENTRY 1 True, SHIFT 3664]), (17758, [ENTRY 1 True, SHIFT 12489]),
    (17760, [ENTRY 1 True, SHIFT 1858]), (17762, [ENTRY 1 True, SHIFT 4156]),
    (17764, [ENTRY 1 True, SHIFT 3718]), (17766, [ENTRY 1 True, SHIFT 7436]),
    (17768, [ENTRY 1 True, SHIFT 3737]), (17770, [ENTRY 1 True, SHIFT 6794]),
    (17772, [ENTRY 1 True, SHIFT 8414]), (17774, [ENTRY 1 True, SHIFT 1965]),
    (17776, [ENTRY 1 True, SHIFT 8286]), (17778, [ENTRY 1 True, SHIFT 1900]),
    (17780, [ENTRY 1 True, SHIFT 8419]), (17782, [ENTRY 1 True, SHIFT 1967]),
    (17784, [ENTRY 1 True, SHIFT 8426]), (17786, [ENTRY 1 True, SHIFT 1969]),
    (17788, [ENTRY 1 True, SHIFT 8433]), (17790, [ENTRY 1 True, SHIFT 1970]),
    (17792, [ENTRY 1 True, SHIFT 3720]), (17794, [ENTRY 1 True, SHIFT 7438]),
    (17796, [ENTRY 1 True, SHIFT 1848]), (17798, [ENTRY 1 True, SHIFT 4015]),
    (17800, [ENTRY 1 True, SHIFT 8450]), (17802, [ENTRY 1 True, SHIFT 1975]),
    (17804, [ENTRY 1 True, SHIFT 8455]), (17806, [ENTRY 1 True, SHIFT 1977]),
    (17808, [ENTRY 1 True, SHIFT 8462]), (17810, [ENTRY 1 True, SHIFT 1979]),
    (17812, [ENTRY 1 True, SHIFT 3773]), (17814, [ENTRY 1 True, SHIFT 8469]),
    (17816, [ENTRY 1 True, SHIFT 1980]), (17818, [ENTRY 1 True, SHIFT 2091]),
    (17820, [ENTRY 1 True, SHIFT 8598]), (17822, [ENTRY 1 True, SHIFT 1961]),
    (17824, [ENTRY 2 True, REDUCE aux_sym_case_clause_repeat1 2 0 0, SHIFT_REPEAT 7893]),
    (17827, [ENTRY 1 True, SHIFT 1971]), (17829, [ENTRY 1 True, SHIFT 3774]),
    (17831, [ENTRY 1 True, SHIFT 12348]), (17833, [ENTRY 1 True, SHIFT 2074]),
    (17835, [ENTRY 1 True, SHIFT 8514]), (17837, [ENTRY 1 True, SHIFT 3996]),
    (17839, [ENTRY 1 True, SHIFT 7693]), (17841, [ENTRY 1 True, SHIFT 3710]),
    (17843, [ENTRY 1 True, SHIFT 7589]), (17845, [ENTRY 1 True, SHIFT 12349]),
    (17847, [ENTRY 1 True, SHIFT 7633]), (17849, [ENTRY 1 True, SHIFT 3711]),
    (17851, [ENTRY 1 True, SHIFT 7606]), (17853, [ENTRY 1 True, SHIFT 5401]),
    (17855, [ENTRY 1 True, SHIFT 3802]), (17857, [ENTRY 1 True, SHIFT 1847]),
    (17859, [ENTRY 1 True, SHIFT 3827]), (17861, [ENTRY 1 True, SHIFT 8375]),
    (17863, [ENTRY 1 True, SHIFT 1985]),
    (17865, [ENTRY 2 True, REDUCE aux_sym_with_clause_repeat1 2 0 0, SHIFT_REPEAT 4009]),
    (17868, [ENTRY 1 True, SHIFT 8381]), (17870, [ENTRY 1 True, SHIFT 1987]),
    (17872, [ENTRY 1 True, SHIFT 8388]), (17874, [ENTRY 1 True, SHIFT 1890]),
    (17876, [ENTRY 1 True, SHIFT 8395]), (17878, [ENTRY 1 True, SHIFT 1989]),
    (17880, [ENTRY 1 True, SHIFT 12582]), (17882, [ENTRY 1 True, SHIFT 2041]),
    (17884, [ENTRY 1 True, SHIFT 8583]), (17886, [ENTRY 1 True, SHIFT 2035]),
    (17888, [ENTRY 1 True, SHIFT 8603]),
    (17890, [ENTRY 2 True, REDUCE aux_sym_subscript_repeat1 2 0 87, SHIFT_REPEAT 3788]),
    (17893, [ENTRY 1 True, REDUCE aux_sym_subscript_repeat1 2 0 87]),
    (17895, [ENTRY 1 True, SHIFT 1981]),
    (17897, [ENTRY 1 False, REDUCE aux_sym_format_specifier_repeat1 1 0 56]),
    (17899, [ENTRY 1 True, REDUCE aux_sym_format_specifier_repeat1 1 0 56]),
    (17901, [ENTRY 1 True, SHIFT 3942]), (17903, [ENTRY 1 True, SHIFT 3721]),
    (17905, [ENTRY 1 True, SHIFT 7440]), (17907, [ENTRY 1 True, SHIFT 3749]),
    (17909, [ENTRY 1 True, SHIFT 7626]), (17911, [ENTRY 1 True, SHIFT 7161]),
    (17913, [ENTRY 1 True, SHIFT 12358]), (17915, [ENTRY 1 True, SHIFT 11864]),
    (17917, [ENTRY 1 True, SHIFT 4182]), (17919, [ENTRY 1 True, SHIFT 10140]),
    (17921, [ENTRY 1 True, SHIFT 12284]), (17923, [ENTRY 1 True, SHIFT 4133]),
    (17925, [ENTRY 1 True, REDUCE sym_positional_separator 1 0 0]),
    (17927, [ENTRY 1 True, REDUCE sym_augmented_assignment 3 0 22]),
    (17929, [ENTRY 1 True, SHIFT 10681]), (17931, [ENTRY 1 True, SHIFT 10693]),
    (17933, [ENTRY 1 True, REDUCE sym_parameterized_alias_statement 7 1 133]),
    (17935, [ENTRY 1 True, SHIFT 3142]), (17937, [ENTRY 1 False, SHIFT 11403]),
    (17939, [ENTRY 1 True, SHIFT 11403]), (17941, [ENTRY 1 True, SHIFT 10429]),
    (17943, [ENTRY 1 True, REDUCE sym_wildcard_origin 1 0 0]), (17945, [ENTRY 1 True, SHIFT 9552]),
    (17947, [ENTRY 1 True, REDUCE aux_sym_type_parameter_repeat1 4 0 130]),
    (17949, [ENTRY 1 True, SHIFT 11307]), (17951, [ENTRY 1 True, SHIFT 12576]),
    (17953, [ENTRY 1 False, SHIFT 11036]), (17955, [ENTRY 1 True, SHIFT 11036]),
    (17957, [ENTRY 1 True, SHIFT 6719]), (17959, [ENTRY 1 True, REDUCE sym_pass_statement 1 0 0]),
    (17961, [ENTRY 1 True, SHIFT 12012]), (17963, [ENTRY 1 True, SHIFT 4142]),
    (17965, [ENTRY 1 True, SHIFT 10769]),
    (17967, [ENTRY 1 True, REDUCE sym_break_statement 1 0 0]),
    (17969, [ENTRY 1 True, REDUCE sym_import_from_statement 4 0 35]),
    (17971, [ENTRY 1 True, REDUCE sym_case_clause 4 0 171]),
    (17973, [ENTRY 1 True, REDUCE sym_case_clause 6 0 291]), (17975, [ENTRY 1 False, SHIFT 11103]),
    (17977, [ENTRY 1 True, SHIFT 10785]), (17979, [ENTRY 1 False, SHIFT 11399]),
    (17981, [ENTRY 1 True, SHIFT 11399]), (17983, [ENTRY 1 False, SHIFT 10258]),
    (17985, [ENTRY 1 True, SHIFT 10258]),
    (17987, [ENTRY 1 True, REDUCE sym_parameterized_alias_statement 5 1 59]),
    (17989, [ENTRY 1 True, SHIFT 12176]), (17991, [ENTRY 1 True, SHIFT 4152]),
    (17993, [ENTRY 1 True, REDUCE sym_case_clause 5 0 223]), (17995, [ENTRY 1 True, SHIFT 10160]),
    (17997, [ENTRY 1 True, REDUCE sym_case_clause 6 0 289]), (17999, [ENTRY 1 False, SHIFT 11144]),
    (18001, [ENTRY 1 True, SHIFT 12624]), (18003, [ENTRY 1 True, SHIFT 12260]),
    (18005, [ENTRY 1 True, SHIFT 4157]), (18007, [ENTRY 1 False, SHIFT 11715]),
    (18009, [ENTRY 1 True, SHIFT 11715]), (18011, [ENTRY 1 False, SHIFT 11794]),
    (18013, [ENTRY 1 True, SHIFT 11794]), (18015, [ENTRY 1 False, SHIFT 9878]),
    (18017, [ENTRY 1 True, SHIFT 9878])]"

definition parse_actions_59 :: "(nat \<times> TSParseActionEntry list) list" where "parse_actions_59 = [
    (18019, [ENTRY 1 True, SHIFT 12134]), (18021, [ENTRY 1 True, SHIFT 4136]),
    (18023, [ENTRY 1 True, SHIFT 3172]), (18025, [ENTRY 1 True, SHIFT 2314]),
    (18027, [ENTRY 1 True, SHIFT 11838]), (18029, [ENTRY 1 True, SHIFT 4162]),
    (18031, [ENTRY 1 True, REDUCE sym_case_clause 6 0 290]),
    (18033, [ENTRY 1 True, REDUCE sym_case_clause 7 0 367]),
    (18035, [ENTRY 1 True, REDUCE sym_case_clause 6 0 292]),
    (18037, [ENTRY 1 True, REDUCE sym_assignment 3 0 21]), (18039, [ENTRY 1 False, SHIFT 11625]),
    (18041, [ENTRY 1 True, SHIFT 11625]), (18043, [ENTRY 1 True, SHIFT 11930]),
    (18045, [ENTRY 1 True, SHIFT 4167]),
    (18047, [ENTRY 1 True, REDUCE aux_sym_dict_pattern_repeat1 2 0 170]),
    (18049, [ENTRY 1 True, SHIFT 3192]), (18051, [ENTRY 1 True, SHIFT 3940]),
    (18053, [ENTRY 1 True, SHIFT 3963]), (18055, [ENTRY 1 True, SHIFT 3966]),
    (18057, [ENTRY 1 True, REDUCE sym_case_clause 7 0 369]), (18059, [ENTRY 1 True, SHIFT 3903]),
    (18061, [ENTRY 1 True, REDUCE sym_slice_keyword_argument 3 0 19]),
    (18063, [ENTRY 1 True, REDUCE aux_sym_unified_clause_repeat1 3 0 0]),
    (18065, [ENTRY 1 False, SHIFT 11624]), (18067, [ENTRY 1 False, SHIFT 10467]),
    (18069, [ENTRY 1 True, SHIFT 10467]), (18071, [ENTRY 1 True, REDUCE sym_assignment 6 0 97]),
    (18073, [ENTRY 1 True, SHIFT 3986]),
    (18075, [ENTRY 1 True, REDUCE sym_continue_statement 1 0 0]),
    (18077, [ENTRY 1 True, SHIFT 3972]),
    (18079, [ENTRY 1 True, REDUCE sym_slice_keyword_argument 3 0 50]),
    (18081, [ENTRY 1 True, REDUCE aux_sym_result_convention_repeat1 3 0 0]),
    (18083, [ENTRY 2 True, REDUCE aux_sym_intersection_type_repeat1 2 0 0, SHIFT_REPEAT 11298]),
    (18086, [ENTRY 1 False, SHIFT 10793]), (18088, [ENTRY 1 True, SHIFT 10793]),
    (18090, [ENTRY 1 True, REDUCE sym_infer_separator 1 0 0]),
    (18092, [ENTRY 1 True, REDUCE sym_assignment 5 0 81]),
    (18094, [ENTRY 1 True, REDUCE sym_case_clause 5 0 224]), (18096, [ENTRY 1 True, SHIFT 11507]),
    (18098, [ENTRY 1 True, SHIFT 12473]), (18100, [ENTRY 1 True, SHIFT 3970]),
    (18102, [ENTRY 1 True, REDUCE aux_sym_argument_list_repeat1 2 0 36]),
    (18104, [ENTRY 1 True, REDUCE sym_case_clause 8 0 455]),
    (18106, [ENTRY 1 True, REDUCE aux_sym_parameter_list_repeat1 2 0 36]),
    (18108, [ENTRY 1 True, REDUCE sym_future_import_statement 4 0 33]),
    (18110, [ENTRY 1 True, REDUCE sym_future_import_statement 6 0 92]),
    (18112, [ENTRY 1 True, REDUCE aux_sym_type_parameter_repeat1 6 0 218]),
    (18114, [ENTRY 1 True, SHIFT 10896]), (18116, [ENTRY 1 True, SHIFT 10897]),
    (18118, [ENTRY 1 True, REDUCE sym_case_clause 5 0 225]),
    (18120, [ENTRY 1 True, REDUCE sym_import_from_statement 6 0 93]),
    (18122, [ENTRY 1 True, REDUCE sym_wildcard_import 1 0 0]),
    (18124, [ENTRY 1 True, SHIFT 11570]), (18126, [ENTRY 1 True, SHIFT 12755]),
    (18128, [ENTRY 1 True, SHIFT 11571]), (18130, [ENTRY 1 True, SHIFT 12756]),
    (18132, [ENTRY 1 True, SHIFT 10470]), (18134, [ENTRY 1 True, REDUCE sym_case_clause 7 0 368]),
    (18136, [ENTRY 1 True, REDUCE sym_import_statement 2 0 4]),
    (18138, [ENTRY 1 True, REDUCE aux_sym__match_block_repeat1 1 0 62]),
    (18140, [ENTRY 1 True, REDUCE sym_import_from_statement 4 0 34]),
    (18142, [ENTRY 1 False, SHIFT 11236]), (18144, [ENTRY 1 True, SHIFT 11236]),
    (18146, [ENTRY 1 True, REDUCE sym_assignment 4 0 40]), (18148, [ENTRY 1 True, SHIFT 3973]),
    (18150, [ENTRY 1 True, SHIFT 10929]), (18152, [ENTRY 1 True, SHIFT 10930]),
    (18154, [ENTRY 1 True, SHIFT 10931]), (18156, [ENTRY 1 True, SHIFT 10932]),
    (18158, [ENTRY 1 False, SHIFT 11049]), (18160, [ENTRY 1 True, SHIFT 11049]),
    (18162, [ENTRY 1 True, SHIFT 10935]), (18164, [ENTRY 1 True, SHIFT 10937]),
    (18166, [ENTRY 1 False, SHIFT 11195]), (18168, [ENTRY 1 True, SHIFT 11921]),
    (18170, [ENTRY 1 True, SHIFT 11796]), (18172, [ENTRY 1 True, REDUCE sym_parameter_list 4 0 0]),
    (18174, [ENTRY 1 True, SHIFT 10354]), (18176, [ENTRY 1 True, SHIFT 12275]),
    (18178, [ENTRY 1 True, SHIFT 8153]), (18180, [ENTRY 1 True, SHIFT 11639]),
    (18182, [ENTRY 1 True, SHIFT 1939]), (18184, [ENTRY 1 True, SHIFT 11694]),
    (18186, [ENTRY 1 True, SHIFT 7005]), (18188, [ENTRY 1 True, SHIFT 4233]),
    (18190, [ENTRY 1 True, SHIFT 7160]), (18192, [ENTRY 1 True, SHIFT 12233]),
    (18194, [ENTRY 1 True, SHIFT 4253]), (18196, [ENTRY 1 True, SHIFT 7186]),
    (18198, [ENTRY 1 True, SHIFT 12273]), (18200, [ENTRY 1 True, REDUCE sym_with_clause 5 0 0]),
    (18202, [ENTRY 1 True, SHIFT 11637]), (18204, [ENTRY 1 True, SHIFT 7176]),
    (18206, [ENTRY 1 True, SHIFT 4268]), (18208, [ENTRY 1 True, SHIFT 1951]),
    (18210, [ENTRY 1 True, REDUCE sym_parameter_list 3 0 36]), (18212, [ENTRY 1 True, SHIFT 7290]),
    (18214, [ENTRY 1 True, SHIFT 8095]), (18216, [ENTRY 1 True, ACCEPT_INPUT]),
    (18218, [ENTRY 1 True, SHIFT 9090]), (18220, [ENTRY 1 True, SHIFT 7189]),
    (18222, [ENTRY 1 True, SHIFT 12214]),
    (18224, [ENTRY 1 True, REDUCE sym_superclass_list 4 0 36]),
    (18226, [ENTRY 1 True, SHIFT 1948]), (18228, [ENTRY 1 True, SHIFT 7125]),
    (18230, [ENTRY 1 True, SHIFT 12386]), (18232, [ENTRY 1 True, SHIFT 4097]),
    (18234, [ENTRY 1 True, REDUCE sym_parameter_list 4 0 36]), (18236, [ENTRY 1 True, SHIFT 1243]),
    (18238, [ENTRY 1 True, SHIFT 7748]), (18240, [ENTRY 1 True, SHIFT 7190]),
    (18242, [ENTRY 1 True, SHIFT 1490]), (18244, [ENTRY 1 True, REDUCE sym_with_clause 4 0 0]),
    (18246, [ENTRY 1 True, SHIFT 12163]), (18248, [ENTRY 1 True, SHIFT 4109]),
    (18250, [ENTRY 1 True, REDUCE sym_lambda_parameters 1 0 0]),
    (18252, [ENTRY 1 True, SHIFT 7142]), (18254, [ENTRY 1 True, SHIFT 8033]),
    (18256, [ENTRY 1 True, SHIFT 1843]), (18258, [ENTRY 1 True, SHIFT 7595]),
    (18260, [ENTRY 1 True, SHIFT 10972]), (18262, [ENTRY 1 True, SHIFT 11262]),
    (18264, [ENTRY 1 True, SHIFT 8034]), (18266, [ENTRY 1 True, SHIFT 7598]),
    (18268, [ENTRY 1 True, SHIFT 10969]), (18270, [ENTRY 1 True, SHIFT 12464]),
    (18272, [ENTRY 1 True, SHIFT 4225]), (18274, [ENTRY 1 True, SHIFT 7601]),
    (18276, [ENTRY 1 True, SHIFT 4192]), (18278, [ENTRY 1 True, SHIFT 4125]),
    (18280, [ENTRY 1 True, SHIFT 7139]), (18282, [ENTRY 1 True, SHIFT 7173]),
    (18284, [ENTRY 1 True, SHIFT 1228]), (18286, [ENTRY 1 True, SHIFT 7714]),
    (18288, [ENTRY 1 True, SHIFT 4082]), (18290, [ENTRY 1 True, SHIFT 11064]),
    (18292, [ENTRY 1 True, SHIFT 10690]), (18294, [ENTRY 1 True, SHIFT 7618]),
    (18296, [ENTRY 1 True, SHIFT 7619]), (18298, [ENTRY 1 True, SHIFT 6983]),
    (18300, [ENTRY 1 True, SHIFT 3197]), (18302, [ENTRY 1 True, SHIFT 7622]),
    (18304, [ENTRY 1 True, SHIFT 7012]), (18306, [ENTRY 1 True, SHIFT 7623]),
    (18308, [ENTRY 1 True, SHIFT 11685]), (18310, [ENTRY 1 True, SHIFT 2846]),
    (18312, [ENTRY 1 True, SHIFT 12587]),
    (18314, [ENTRY 1 True, REDUCE sym_superclass_list 5 0 0]), (18316, [ENTRY 1 True, SHIFT 9324]),
    (18318, [ENTRY 1 True, SHIFT 12422])]"

definition parse_actions_60 :: "(nat \<times> TSParseActionEntry list) list" where "parse_actions_60 = [
    (18320, [ENTRY 1 True, SHIFT 1894]), (18322, [ENTRY 1 True, SHIFT 1241]),
    (18324, [ENTRY 1 True, REDUCE sym_superclass_list 2 0 0]),
    (18326, [ENTRY 1 True, REDUCE sym_superclass_list 4 0 0]), (18328, [ENTRY 1 True, SHIFT 16]),
    (18330, [ENTRY 1 True, SHIFT 3911]), (18332, [ENTRY 1 True, SHIFT 12405]),
    (18334, [ENTRY 1 True, SHIFT 7465]), (18336, [ENTRY 1 True, SHIFT 11287]),
    (18338, [ENTRY 1 True, SHIFT 12399]), (18340, [ENTRY 1 True, SHIFT 6997]),
    (18342, [ENTRY 1 True, SHIFT 3946]), (18344, [ENTRY 1 True, SHIFT 11602]),
    (18346, [ENTRY 1 True, SHIFT 12553]), (18348, [ENTRY 1 True, SHIFT 7741]),
    (18350, [ENTRY 1 True, SHIFT 1756]), (18352, [ENTRY 1 True, SHIFT 8077]),
    (18354, [ENTRY 1 True, SHIFT 1647]), (18356, [ENTRY 1 True, SHIFT 10]),
    (18358, [ENTRY 1 True, REDUCE sym_trait_list 2 0 0]), (18360, [ENTRY 1 True, SHIFT 9605]),
    (18362, [ENTRY 1 True, SHIFT 4068]), (18364, [ENTRY 1 True, SHIFT 476]),
    (18366, [ENTRY 1 True, SHIFT 11186]), (18368, [ENTRY 1 True, SHIFT 7467]),
    (18370, [ENTRY 1 True, SHIFT 7128]), (18372, [ENTRY 1 True, SHIFT 7680]),
    (18374, [ENTRY 1 True, SHIFT 10767]),
    (18376, [ENTRY 1 True, REDUCE sym_superclass_list 3 0 0]),
    (18378, [ENTRY 1 True, REDUCE sym_parameter_list 6 0 0]), (18380, [ENTRY 1 True, SHIFT 8242]),
    (18382, [ENTRY 1 True, SHIFT 4250]), (18384, [ENTRY 1 True, SHIFT 7140]),
    (18386, [ENTRY 1 True, SHIFT 7236]), (18388, [ENTRY 1 True, REDUCE sym_parameter_list 5 0 0]),
    (18390, [ENTRY 1 True, SHIFT 1251]), (18392, [ENTRY 1 True, SHIFT 8688]),
    (18394, [ENTRY 1 True, SHIFT 10473]), (18396, [ENTRY 1 True, SHIFT 1297]),
    (18398, [ENTRY 1 True, SHIFT 8168]), (18400, [ENTRY 1 True, SHIFT 4211]),
    (18402, [ENTRY 1 True, REDUCE aux_sym_intersection_type_repeat1 2 0 0]),
    (18404, [ENTRY 1 True, SHIFT 7933]), (18406, [ENTRY 1 True, SHIFT 12444]),
    (18408, [ENTRY 1 True, SHIFT 7476]), (18410, [ENTRY 1 True, SHIFT 7615]),
    (18412, [ENTRY 1 True, SHIFT 6995]), (18414, [ENTRY 1 True, SHIFT 4160]),
    (18416, [ENTRY 1 True, SHIFT 7726]), (18418, [ENTRY 1 True, SHIFT 7707]),
    (18420, [ENTRY 1 True, SHIFT 7185]), (18422, [ENTRY 1 True, REDUCE sym_trait_list 5 0 0]),
    (18424, [ENTRY 1 True, SHIFT 1782]), (18426, [ENTRY 1 True, SHIFT 7687]),
    (18428, [ENTRY 1 True, SHIFT 11315]), (18430, [ENTRY 1 True, SHIFT 4446]),
    (18432, [ENTRY 1 True, SHIFT 4138]), (18434, [ENTRY 1 True, SHIFT 9615]),
    (18436, [ENTRY 1 True, SHIFT 4214]), (18438, [ENTRY 1 True, SHIFT 470]),
    (18440, [ENTRY 1 True, SHIFT 9660]), (18442, [ENTRY 1 True, SHIFT 9733]),
    (18444, [ENTRY 1 True, SHIFT 1919]), (18446, [ENTRY 1 True, SHIFT 12271]),
    (18448, [ENTRY 1 True, SHIFT 8524]), (18450, [ENTRY 1 True, SHIFT 11979]),
    (18452, [ENTRY 1 True, SHIFT 7287]), (18454, [ENTRY 1 True, SHIFT 7682]),
    (18456, [ENTRY 1 True, SHIFT 1475]), (18458, [ENTRY 1 True, SHIFT 7691]),
    (18460, [ENTRY 1 True, SHIFT 12243]), (18462, [ENTRY 1 True, SHIFT 12309]),
    (18464, [ENTRY 1 True, REDUCE sym_parameter_list 5 0 36]), (18466, [ENTRY 1 True, SHIFT 5103]),
    (18468, [ENTRY 1 True, SHIFT 12344]), (18470, [ENTRY 1 True, SHIFT 7131]),
    (18472, [ENTRY 1 True, SHIFT 7758]), (18474, [ENTRY 1 True, SHIFT 10137]),
    (18476, [ENTRY 1 True, REDUCE sym_superclass_list 6 0 0]),
    (18478, [ENTRY 1 True, SHIFT 10673]), (18480, [ENTRY 1 True, SHIFT 4218]),
    (18482, [ENTRY 1 True, SHIFT 2847]),
    (18484, [ENTRY 1 True, REDUCE sym_superclass_list 6 0 36]),
    (18486, [ENTRY 1 True, SHIFT 7427]), (18488, [ENTRY 1 True, SHIFT 7172]),
    (18490, [ENTRY 1 True, SHIFT 1962]), (18492, [ENTRY 1 True, SHIFT 4239]),
    (18494, [ENTRY 1 True, SHIFT 7429]), (18496, [ENTRY 1 True, SHIFT 3926]),
    (18498, [ENTRY 1 True, SHIFT 4221]), (18500, [ENTRY 1 True, SHIFT 1237]),
    (18502, [ENTRY 1 True, SHIFT 1972]),
    (18504, [ENTRY 1 True, REDUCE sym_superclass_list 3 0 36]),
    (18506, [ENTRY 1 True, SHIFT 8159]), (18508, [ENTRY 1 True, SHIFT 1489]),
    (18510, [ENTRY 1 True, SHIFT 12436]), (18512, [ENTRY 1 True, SHIFT 12313]),
    (18514, [ENTRY 1 True, SHIFT 12334]), (18516, [ENTRY 1 True, SHIFT 12379]),
    (18518, [ENTRY 1 True, SHIFT 7448]), (18520, [ENTRY 1 True, SHIFT 9640]),
    (18522, [ENTRY 1 True, SHIFT 11997]), (18524, [ENTRY 1 True, SHIFT 12431]),
    (18526, [ENTRY 1 True, SHIFT 1548]), (18528, [ENTRY 1 True, SHIFT 7449]),
    (18530, [ENTRY 1 True, SHIFT 7695]), (18532, [ENTRY 1 True, REDUCE sym_trait_list 3 0 0]),
    (18534, [ENTRY 1 True, SHIFT 8496]), (18536, [ENTRY 1 True, SHIFT 3977]),
    (18538, [ENTRY 1 True, SHIFT 12441]), (18540, [ENTRY 1 True, SHIFT 4184]),
    (18542, [ENTRY 1 True, SHIFT 8501]), (18544, [ENTRY 1 True, SHIFT 4174]),
    (18546, [ENTRY 1 True, SHIFT 12567]), (18548, [ENTRY 1 True, REDUCE sym_trait_list 4 0 0]),
    (18550, [ENTRY 1 True, SHIFT 11585]), (18552, [ENTRY 1 True, SHIFT 4243]),
    (18554, [ENTRY 1 True, SHIFT 7120]), (18556, [ENTRY 1 True, SHIFT 4207]),
    (18558, [ENTRY 1 True, SHIFT 11592]), (18560, [ENTRY 1 True, SHIFT 11598]),
    (18562, [ENTRY 1 True, SHIFT 7002]), (18564, [ENTRY 1 True, SHIFT 7285]),
    (18566, [ENTRY 1 True, SHIFT 9055]), (18568, [ENTRY 1 True, SHIFT 1435]),
    (18570, [ENTRY 1 True, SHIFT 1231]), (18572, [ENTRY 1 True, SHIFT 11607]),
    (18574, [ENTRY 1 True, SHIFT 3196]), (18576, [ENTRY 1 True, SHIFT 6777]),
    (18578, [ENTRY 1 True, SHIFT 12627]), (18580, [ENTRY 1 True, SHIFT 1677]),
    (18582, [ENTRY 1 True, SHIFT 7135]), (18584, [ENTRY 1 True, SHIFT 1929]),
    (18586, [ENTRY 1 True, SHIFT 1227]), (18588, [ENTRY 1 True, REDUCE sym_parameter_list 3 0 0]),
    (18590, [ENTRY 1 True, SHIFT 1225]), (18592, [ENTRY 1 True, SHIFT 7765]),
    (18594, [ENTRY 1 True, REDUCE sym_superclass_list 5 0 36]),
    (18596, [ENTRY 1 True, SHIFT 10474]), (18598, [ENTRY 1 True, SHIFT 7159]),
    (18600, [ENTRY 1 True, SHIFT 3993]), (18602, [ENTRY 1 True, SHIFT 7592]),
    (18604, [ENTRY 1 True, SHIFT 3934]), (18606, [ENTRY 1 True, SHIFT 11845]),
    (18608, [ENTRY 1 True, SHIFT 1982]), (18610, [ENTRY 1 True, SHIFT 4141]),
    (18612, [ENTRY 1 True, SHIFT 12706]), (18614, [ENTRY 1 True, SHIFT 12525]),
    (18616, [ENTRY 1 True, SHIFT 8013]), (18618, [ENTRY 1 True, SHIFT 12711])]"

definition parse_actions_61 :: "(nat \<times> TSParseActionEntry list) list" where "parse_actions_61 = [
    (18620, [ENTRY 1 True, SHIFT 12712]), (18622, [ENTRY 1 True, SHIFT 11052]),
    (18624, [ENTRY 1 True, SHIFT 12719]), (18626, [ENTRY 1 True, SHIFT 12642]),
    (18628, [ENTRY 1 True, SHIFT 7006]), (18630, [ENTRY 1 True, SHIFT 11919]),
    (18632, [ENTRY 1 True, SHIFT 4101]), (18634, [ENTRY 1 True, SHIFT 11923]),
    (18636, [ENTRY 1 True, SHIFT 1910]), (18638, [ENTRY 1 True, SHIFT 11803]),
    (18640, [ENTRY 1 True, SHIFT 11804])]"

definition parse_action_rows :: "(nat \<times> TSParseActionEntry list) list" where
  "parse_action_rows = concat [
    parse_actions_0, parse_actions_1, parse_actions_2, parse_actions_3, parse_actions_4,
    parse_actions_5, parse_actions_6, parse_actions_7, parse_actions_8, parse_actions_9,
    parse_actions_10, parse_actions_11, parse_actions_12, parse_actions_13, parse_actions_14,
    parse_actions_15, parse_actions_16, parse_actions_17, parse_actions_18, parse_actions_19,
    parse_actions_20, parse_actions_21, parse_actions_22, parse_actions_23, parse_actions_24,
    parse_actions_25, parse_actions_26, parse_actions_27, parse_actions_28, parse_actions_29,
    parse_actions_30, parse_actions_31, parse_actions_32, parse_actions_33, parse_actions_34,
    parse_actions_35, parse_actions_36, parse_actions_37, parse_actions_38, parse_actions_39,
    parse_actions_40, parse_actions_41, parse_actions_42, parse_actions_43, parse_actions_44,
    parse_actions_45, parse_actions_46, parse_actions_47, parse_actions_48, parse_actions_49,
    parse_actions_50, parse_actions_51, parse_actions_52, parse_actions_53, parse_actions_54,
    parse_actions_55, parse_actions_56, parse_actions_57, parse_actions_58, parse_actions_59,
    parse_actions_60, parse_actions_61]"

definition ts_parse_actions :: "TSParseActionEntry list" where
  "ts_parse_actions = designated_runs (ENTRY 0 False) parse_action_rows"

text \<open>The actions of the group whose header is at index \<open>i\<close>: the header gives their number, and they
  follow it.\<close>

fun entry_action :: "TSParseActionEntry \<Rightarrow> TSParseAction option" where
  "entry_action (Action a) = Some a"
| "entry_action (Entry count reusable) = None"

definition actions_at :: "nat \<Rightarrow> TSParseAction list option" where
  "actions_at i = (case ts_parse_actions ! i of
     Entry count reusable \<Rightarrow> those (map entry_action (take count (drop (Suc i) ts_parse_actions)))
   | Action a \<Rightarrow> None)"

end
