(* ===== verification/Mojo_Fields.thy ===== *)
theory Mojo_Fields
  imports C_Arrays Mojo_Grammar
begin

text \<open>
  The fields and aliases of the productions
  (\<^verbatim>\<open>grammars/tree-sitter-mojo/src/parser.c\<close>): \<open>ts_field_map_slices\<close> gives for each production the part of
  \<open>ts_field_map_entries\<close> that lists its fields with the children that carry them, and
  \<open>ts_alias_sequences\<close> the symbols under which its children appear. Definitions only; the tables are
  split into blocks of at most 150 lines of the source.
\<close>

section \<open>Fields\<close>

text \<open>The fields of the C structures keep their names with the prefix \<open>slice_\<close> for the slices, whose
  own are functions of the library.\<close>

record TSMapSlice =
  slice_index :: nat
  slice_length :: nat

record TSFieldMapEntry =
  field_id :: nat
  child_index :: nat
  inherited :: bool

definition map_slice :: "nat \<Rightarrow> nat \<Rightarrow> TSMapSlice" where
  "map_slice i n = \<lparr>slice_index = i, slice_length = n\<rparr>"

text \<open>\<open>{f, c}\<close> and \<open>{f, c, .inherited = true}\<close>.\<close>

definition field_entry :: "nat \<Rightarrow> nat \<Rightarrow> TSFieldMapEntry" where
  "field_entry f c = \<lparr>field_id = f, child_index = c, inherited = False\<rparr>"

definition inherited_entry :: "nat \<Rightarrow> nat \<Rightarrow> TSFieldMapEntry" where
  "inherited_entry f c = \<lparr>field_id = f, child_index = c, inherited = True\<rparr>"

definition field_map_slices_0 :: "(nat \<times> TSMapSlice) list" where "field_map_slices_0 = [
    (3, map_slice 0 1), (4, map_slice 1 1), (6, map_slice 2 1), (7, map_slice 3 1),
    (8, map_slice 4 1), (9, map_slice 5 2), (10, map_slice 7 2), (11, map_slice 9 1),
    (12, map_slice 10 1), (13, map_slice 11 2), (14, map_slice 13 1), (15, map_slice 14 2),
    (16, map_slice 16 1), (17, map_slice 17 1), (19, map_slice 18 2), (20, map_slice 20 2),
    (21, map_slice 22 2), (22, map_slice 24 3), (23, map_slice 27 1), (24, map_slice 28 2),
    (25, map_slice 30 1), (26, map_slice 31 2), (27, map_slice 33 2), (28, map_slice 35 2),
    (29, map_slice 37 1), (30, map_slice 38 1), (31, map_slice 39 2), (32, map_slice 41 2),
    (33, map_slice 43 1), (34, map_slice 44 2), (35, map_slice 46 1), (37, map_slice 47 1),
    (38, map_slice 48 2), (39, map_slice 50 2), (40, map_slice 52 2), (41, map_slice 54 1),
    (42, map_slice 55 2), (43, map_slice 57 2), (44, map_slice 59 1), (45, map_slice 60 3),
    (46, map_slice 63 2), (47, map_slice 65 2), (48, map_slice 17 1), (49, map_slice 67 1),
    (50, map_slice 18 2), (51, map_slice 68 2), (52, map_slice 70 1), (53, map_slice 71 2),
    (54, map_slice 73 2), (55, map_slice 73 2), (57, map_slice 75 2), (58, map_slice 77 2),
    (59, map_slice 79 3), (60, map_slice 82 3), (61, map_slice 85 3), (62, map_slice 88 1),
    (63, map_slice 89 3), (64, map_slice 92 3), (65, map_slice 95 3), (66, map_slice 98 3),
    (67, map_slice 101 4), (68, map_slice 105 1), (69, map_slice 106 3), (70, map_slice 109 3),
    (71, map_slice 112 2), (72, map_slice 114 2), (73, map_slice 116 1), (74, map_slice 117 2),
    (75, map_slice 119 1), (76, map_slice 120 1), (77, map_slice 121 1), (78, map_slice 122 3),
    (79, map_slice 125 3), (80, map_slice 128 1), (81, map_slice 129 3), (82, map_slice 18 2),
    (83, map_slice 18 2), (84, map_slice 132 1), (85, map_slice 132 1), (86, map_slice 133 3),
    (87, map_slice 136 2), (88, map_slice 133 3), (89, map_slice 138 2), (90, map_slice 140 2),
    (91, map_slice 142 3), (92, map_slice 145 1), (93, map_slice 146 2), (94, map_slice 148 2),
    (95, map_slice 150 4), (96, map_slice 148 2), (97, map_slice 154 3), (98, map_slice 157 4),
    (99, map_slice 161 4), (100, map_slice 165 2), (101, map_slice 167 4), (102, map_slice 171 4),
    (103, map_slice 175 1), (104, map_slice 176 4), (105, map_slice 180 2), (106, map_slice 182 3),
    (107, map_slice 185 3), (108, map_slice 188 4), (110, map_slice 192 3), (111, map_slice 195 4),
    (112, map_slice 199 4), (113, map_slice 203 1), (114, map_slice 204 1), (115, map_slice 205 2),
    (116, map_slice 207 1), (117, map_slice 208 2), (118, map_slice 210 2), (119, map_slice 212 2),
    (120, map_slice 214 2), (121, map_slice 216 4), (122, map_slice 220 4), (123, map_slice 224 4),
    (124, map_slice 228 4), (125, map_slice 232 3), (126, map_slice 235 3), (127, map_slice 238 2),
    (128, map_slice 240 3), (129, map_slice 128 1), (130, map_slice 243 1), (131, map_slice 243 1),
    (132, map_slice 244 2), (133, map_slice 246 4), (134, map_slice 250 5), (135, map_slice 255 3),
    (136, map_slice 258 4), (137, map_slice 262 3), (138, map_slice 265 4), (139, map_slice 269 4),
    (140, map_slice 273 4), (141, map_slice 277 4), (143, map_slice 281 4), (144, map_slice 285 4),
    (145, map_slice 289 3), (146, map_slice 292 5), (147, map_slice 297 4), (148, map_slice 301 4),
    (149, map_slice 305 5), (150, map_slice 310 4), (151, map_slice 314 5), (152, map_slice 319 1),
    (153, map_slice 320 2), (154, map_slice 322 2), (155, map_slice 324 2), (156, map_slice 326 2),
    (157, map_slice 328 2), (158, map_slice 330 3)]"

definition field_map_slices_1 :: "(nat \<times> TSMapSlice) list" where "field_map_slices_1 = [
    (159, map_slice 333 2), (160, map_slice 335 2), (161, map_slice 337 3), (162, map_slice 340 3),
    (163, map_slice 343 5), (164, map_slice 348 3), (165, map_slice 351 3), (166, map_slice 354 2),
    (167, map_slice 356 3), (168, map_slice 359 3), (169, map_slice 359 3), (170, map_slice 362 2),
    (171, map_slice 364 1), (172, map_slice 365 4), (173, map_slice 369 4), (174, map_slice 373 3),
    (175, map_slice 376 4), (176, map_slice 380 4), (177, map_slice 384 3), (178, map_slice 387 5),
    (179, map_slice 392 4), (180, map_slice 396 4), (181, map_slice 400 5), (182, map_slice 405 4),
    (183, map_slice 409 5), (184, map_slice 414 5), (185, map_slice 419 4), (186, map_slice 423 5),
    (187, map_slice 428 4), (188, map_slice 432 4), (189, map_slice 436 5), (190, map_slice 441 5),
    (191, map_slice 446 4), (192, map_slice 450 3), (193, map_slice 453 5), (194, map_slice 458 4),
    (195, map_slice 462 5), (196, map_slice 467 5), (197, map_slice 472 4), (198, map_slice 476 6),
    (199, map_slice 482 5), (200, map_slice 487 5), (201, map_slice 492 1), (202, map_slice 493 2),
    (203, map_slice 495 2), (204, map_slice 497 2), (205, map_slice 499 3), (206, map_slice 502 2),
    (207, map_slice 504 3), (208, map_slice 507 3), (209, map_slice 510 3), (210, map_slice 513 2),
    (211, map_slice 515 3), (212, map_slice 518 3), (213, map_slice 521 3), (214, map_slice 524 3),
    (215, map_slice 527 3), (216, map_slice 530 4), (217, map_slice 534 3), (218, map_slice 537 2),
    (219, map_slice 539 3), (220, map_slice 542 4), (221, map_slice 546 4), (222, map_slice 550 2),
    (223, map_slice 552 1), (224, map_slice 553 2), (225, map_slice 555 2), (226, map_slice 557 5),
    (227, map_slice 562 4), (228, map_slice 566 4), (229, map_slice 570 4), (230, map_slice 574 5),
    (231, map_slice 579 4), (232, map_slice 583 4), (233, map_slice 587 5), (234, map_slice 592 5),
    (235, map_slice 597 4), (236, map_slice 601 3), (237, map_slice 604 5), (238, map_slice 609 4),
    (239, map_slice 613 5), (240, map_slice 618 5), (241, map_slice 623 4), (242, map_slice 627 6),
    (243, map_slice 633 5), (244, map_slice 638 5), (246, map_slice 643 5), (247, map_slice 648 5),
    (248, map_slice 653 4), (249, map_slice 657 5), (250, map_slice 662 4), (251, map_slice 666 5),
    (252, map_slice 671 6), (253, map_slice 677 5), (254, map_slice 682 5), (255, map_slice 687 4),
    (256, map_slice 691 5), (257, map_slice 696 5), (258, map_slice 701 4), (259, map_slice 705 5),
    (260, map_slice 710 6), (261, map_slice 716 5), (262, map_slice 721 5), (263, map_slice 726 6),
    (264, map_slice 732 6), (265, map_slice 738 5), (266, map_slice 743 4), (267, map_slice 747 6),
    (268, map_slice 753 5), (269, map_slice 758 2), (270, map_slice 760 2), (271, map_slice 762 3),
    (272, map_slice 765 3), (273, map_slice 768 3), (274, map_slice 771 2), (275, map_slice 773 3),
    (276, map_slice 776 3), (277, map_slice 779 3), (278, map_slice 782 4), (279, map_slice 786 2),
    (280, map_slice 788 3), (281, map_slice 791 3), (282, map_slice 794 3), (283, map_slice 797 4),
    (284, map_slice 801 3), (285, map_slice 804 4), (286, map_slice 808 4), (287, map_slice 812 4),
    (288, map_slice 816 4), (289, map_slice 820 2), (290, map_slice 822 2), (291, map_slice 824 3),
    (292, map_slice 827 1), (293, map_slice 828 5), (294, map_slice 833 5), (295, map_slice 838 5),
    (296, map_slice 843 4), (297, map_slice 847 5), (298, map_slice 852 4), (299, map_slice 856 5),
    (300, map_slice 861 6), (301, map_slice 867 5), (302, map_slice 872 5), (303, map_slice 877 4),
    (304, map_slice 881 5), (305, map_slice 886 5), (306, map_slice 891 4), (307, map_slice 895 5),
    (308, map_slice 900 6), (309, map_slice 906 5)]"

definition field_map_slices_2 :: "(nat \<times> TSMapSlice) list" where "field_map_slices_2 = [
    (310, map_slice 911 5), (311, map_slice 916 6), (312, map_slice 922 6), (313, map_slice 928 5),
    (314, map_slice 933 4), (315, map_slice 937 6), (316, map_slice 943 5), (317, map_slice 948 6),
    (318, map_slice 954 5), (319, map_slice 959 6), (320, map_slice 965 6), (321, map_slice 971 6),
    (322, map_slice 977 5), (323, map_slice 982 5), (324, map_slice 987 4), (325, map_slice 991 6),
    (326, map_slice 997 5), (327, map_slice 1002 6), (328, map_slice 1008 5),
    (329, map_slice 1013 4), (330, map_slice 1017 5), (331, map_slice 1022 6),
    (332, map_slice 1028 5), (333, map_slice 1033 5), (334, map_slice 1038 6),
    (335, map_slice 1044 5), (336, map_slice 1049 6), (337, map_slice 1055 5),
    (338, map_slice 1060 6), (339, map_slice 1066 7), (340, map_slice 1073 6),
    (341, map_slice 1079 6), (342, map_slice 1085 5), (343, map_slice 1090 6),
    (344, map_slice 1096 6), (345, map_slice 1102 5), (346, map_slice 1107 2),
    (347, map_slice 1109 3), (348, map_slice 1112 3), (349, map_slice 1115 3),
    (350, map_slice 1118 4), (351, map_slice 1122 3), (352, map_slice 1125 2),
    (353, map_slice 1127 3), (354, map_slice 1130 3), (355, map_slice 1133 4),
    (356, map_slice 1137 4), (357, map_slice 1141 3), (358, map_slice 1144 3),
    (359, map_slice 1147 4), (360, map_slice 1151 4), (361, map_slice 1155 4),
    (362, map_slice 1159 3), (363, map_slice 1162 4), (364, map_slice 1166 4),
    (365, map_slice 1170 4), (366, map_slice 1174 5), (367, map_slice 1179 3),
    (368, map_slice 1182 2), (369, map_slice 1184 2), (370, map_slice 1186 6),
    (371, map_slice 1192 5), (372, map_slice 1197 6), (373, map_slice 1203 6),
    (374, map_slice 1209 6), (375, map_slice 1215 5), (376, map_slice 1220 5),
    (377, map_slice 1225 4), (378, map_slice 1229 6), (379, map_slice 1235 5),
    (380, map_slice 1240 6), (381, map_slice 1246 5), (382, map_slice 1251 4),
    (383, map_slice 1255 5), (384, map_slice 1260 6), (385, map_slice 1266 5),
    (386, map_slice 1271 5), (387, map_slice 1276 6), (388, map_slice 1282 5),
    (389, map_slice 1287 6), (390, map_slice 1293 5), (391, map_slice 1298 6),
    (392, map_slice 1304 7), (393, map_slice 1311 6), (394, map_slice 1317 6),
    (395, map_slice 1323 5), (396, map_slice 1328 6), (397, map_slice 1334 6),
    (398, map_slice 1340 5), (399, map_slice 1345 6), (400, map_slice 1351 6),
    (401, map_slice 1357 5), (402, map_slice 1362 7), (403, map_slice 1369 6),
    (404, map_slice 1375 6), (405, map_slice 1381 7), (406, map_slice 1388 6),
    (407, map_slice 1394 7), (408, map_slice 1401 7), (409, map_slice 1408 6),
    (410, map_slice 1414 7), (411, map_slice 1421 7), (412, map_slice 1428 5),
    (413, map_slice 1433 6), (414, map_slice 1439 6), (415, map_slice 1445 5),
    (416, map_slice 1450 5), (417, map_slice 1455 4), (418, map_slice 1459 6),
    (419, map_slice 1465 5), (420, map_slice 1470 6), (421, map_slice 1476 5),
    (422, map_slice 1481 6), (423, map_slice 1487 6), (424, map_slice 1493 5),
    (425, map_slice 1498 7), (426, map_slice 1505 6), (427, map_slice 1511 7),
    (428, map_slice 1518 6), (429, map_slice 1524 5), (430, map_slice 1529 6),
    (431, map_slice 1535 7), (432, map_slice 1542 6), (433, map_slice 1548 6),
    (434, map_slice 1554 3), (435, map_slice 1557 2), (436, map_slice 1559 3),
    (437, map_slice 1562 3), (438, map_slice 1565 4), (439, map_slice 1569 4),
    (440, map_slice 1573 3), (441, map_slice 1576 4), (442, map_slice 1580 3),
    (443, map_slice 1583 4), (444, map_slice 1587 3), (445, map_slice 1590 4),
    (446, map_slice 1594 4), (447, map_slice 1598 4), (448, map_slice 1602 5),
    (449, map_slice 1607 4), (450, map_slice 1611 3), (451, map_slice 1614 4),
    (452, map_slice 1618 4), (453, map_slice 1622 5), (454, map_slice 1627 5),
    (455, map_slice 1632 3), (456, map_slice 1635 6), (457, map_slice 1641 6),
    (458, map_slice 1647 5), (459, map_slice 1652 7)]"

definition field_map_slices_3 :: "(nat \<times> TSMapSlice) list" where "field_map_slices_3 = [
    (460, map_slice 1659 6), (461, map_slice 1665 6), (462, map_slice 1671 7),
    (463, map_slice 1678 6), (464, map_slice 1684 7), (465, map_slice 1691 7),
    (466, map_slice 1698 6), (467, map_slice 1704 7), (468, map_slice 1711 7),
    (469, map_slice 1718 5), (470, map_slice 1723 6), (471, map_slice 1729 6),
    (472, map_slice 1735 5), (473, map_slice 1740 5), (474, map_slice 1745 4),
    (475, map_slice 1749 6), (476, map_slice 1755 5), (477, map_slice 1760 6),
    (478, map_slice 1766 5), (479, map_slice 1771 6), (480, map_slice 1777 6),
    (481, map_slice 1783 5), (482, map_slice 1788 7), (483, map_slice 1795 6),
    (484, map_slice 1801 7), (485, map_slice 1808 6), (486, map_slice 1814 5),
    (487, map_slice 1819 6), (488, map_slice 1825 7), (489, map_slice 1832 6),
    (490, map_slice 1838 6), (491, map_slice 1844 6), (492, map_slice 1850 7),
    (493, map_slice 1857 6), (494, map_slice 1863 6), (495, map_slice 1869 7),
    (496, map_slice 1876 7), (497, map_slice 1883 6), (498, map_slice 1889 5),
    (499, map_slice 1894 7), (500, map_slice 1901 6), (501, map_slice 1907 7),
    (502, map_slice 1914 7), (503, map_slice 1921 6), (504, map_slice 1927 8),
    (505, map_slice 1935 7), (506, map_slice 1942 7), (507, map_slice 1949 7),
    (508, map_slice 1956 7), (509, map_slice 1963 6), (510, map_slice 1969 8),
    (511, map_slice 1977 7), (512, map_slice 1984 7), (513, map_slice 1991 8),
    (514, map_slice 1999 7), (515, map_slice 2006 8), (516, map_slice 2014 6),
    (517, map_slice 2020 5), (518, map_slice 2025 6), (519, map_slice 2031 6),
    (520, map_slice 2037 5), (521, map_slice 2042 6), (522, map_slice 2048 7),
    (523, map_slice 2055 7), (524, map_slice 2062 6), (525, map_slice 2068 6),
    (526, map_slice 2074 5), (527, map_slice 2079 7), (528, map_slice 2086 6),
    (529, map_slice 2092 7), (530, map_slice 2099 6), (531, map_slice 2105 3),
    (532, map_slice 2108 4), (533, map_slice 2112 3), (534, map_slice 2115 4),
    (535, map_slice 2119 4), (536, map_slice 2123 4), (537, map_slice 2127 3),
    (538, map_slice 2130 4), (539, map_slice 2134 4), (540, map_slice 2138 5),
    (541, map_slice 2143 5), (542, map_slice 2148 4), (543, map_slice 2152 5),
    (544, map_slice 2157 4), (545, map_slice 2161 5), (546, map_slice 2166 6),
    (547, map_slice 2172 7), (548, map_slice 2179 6), (549, map_slice 2185 6),
    (550, map_slice 2191 7), (551, map_slice 2198 7), (552, map_slice 2205 6),
    (553, map_slice 2211 5), (554, map_slice 2216 7), (555, map_slice 2223 6),
    (556, map_slice 2229 7), (557, map_slice 2236 7), (558, map_slice 2243 6),
    (559, map_slice 2249 8), (560, map_slice 2257 7), (561, map_slice 2264 7),
    (562, map_slice 2271 7), (563, map_slice 2278 7), (564, map_slice 2285 6),
    (565, map_slice 2291 8), (566, map_slice 2299 7), (567, map_slice 2306 7),
    (568, map_slice 2313 8), (569, map_slice 2321 7), (570, map_slice 2328 8),
    (571, map_slice 2336 6), (572, map_slice 2342 5), (573, map_slice 2347 6),
    (574, map_slice 2353 6), (575, map_slice 2359 5), (576, map_slice 2364 6),
    (577, map_slice 2370 7), (578, map_slice 2377 7), (579, map_slice 2384 6),
    (580, map_slice 2390 6), (581, map_slice 2396 5), (582, map_slice 2401 7),
    (583, map_slice 2408 6), (584, map_slice 2414 7), (585, map_slice 2421 6),
    (586, map_slice 2427 7), (587, map_slice 2434 6), (588, map_slice 2440 7),
    (589, map_slice 2447 6), (590, map_slice 2453 7), (591, map_slice 2460 8),
    (592, map_slice 2468 7), (593, map_slice 2475 7), (594, map_slice 2482 6),
    (595, map_slice 2488 7), (596, map_slice 2495 7), (597, map_slice 2502 6),
    (598, map_slice 2508 7), (599, map_slice 2515 8), (600, map_slice 2523 7),
    (601, map_slice 2530 7), (602, map_slice 2537 8), (603, map_slice 2545 8),
    (604, map_slice 2553 7), (605, map_slice 2560 6), (606, map_slice 2566 8),
    (607, map_slice 2574 7), (608, map_slice 2581 7), (609, map_slice 2588 8)]"

definition field_map_slices_4 :: "(nat \<times> TSMapSlice) list" where "field_map_slices_4 = [
    (610, map_slice 2596 7), (611, map_slice 2603 7), (612, map_slice 2610 8),
    (613, map_slice 2618 8), (614, map_slice 2626 7), (615, map_slice 2633 6),
    (616, map_slice 2639 8), (617, map_slice 2647 7), (618, map_slice 2654 8),
    (619, map_slice 2662 8), (620, map_slice 2670 7), (621, map_slice 2677 9),
    (622, map_slice 2686 8), (623, map_slice 2694 8), (624, map_slice 2702 6),
    (625, map_slice 2708 7), (626, map_slice 2715 6), (627, map_slice 2721 7),
    (628, map_slice 2728 7), (629, map_slice 2735 6), (630, map_slice 2741 4),
    (631, map_slice 2745 4), (632, map_slice 2749 5), (633, map_slice 2754 4),
    (634, map_slice 2758 5), (635, map_slice 2763 5), (636, map_slice 2768 7),
    (637, map_slice 2775 6), (638, map_slice 2781 7), (639, map_slice 2788 6),
    (640, map_slice 2794 7), (641, map_slice 2801 8), (642, map_slice 2809 7),
    (643, map_slice 2816 7), (644, map_slice 2823 6), (645, map_slice 2829 7),
    (646, map_slice 2836 7), (647, map_slice 2843 6), (648, map_slice 2849 7),
    (649, map_slice 2856 8), (650, map_slice 2864 7), (651, map_slice 2871 7),
    (652, map_slice 2878 8), (653, map_slice 2886 8), (654, map_slice 2894 7),
    (655, map_slice 2901 6), (656, map_slice 2907 8), (657, map_slice 2915 7),
    (658, map_slice 2922 7), (659, map_slice 2929 8), (660, map_slice 2937 7),
    (661, map_slice 2944 7), (662, map_slice 2951 8), (663, map_slice 2959 8),
    (664, map_slice 2967 7), (665, map_slice 2974 6), (666, map_slice 2980 8),
    (667, map_slice 2988 7), (668, map_slice 2995 8), (669, map_slice 3003 8),
    (670, map_slice 3011 7), (671, map_slice 3018 9), (672, map_slice 3027 8),
    (673, map_slice 3035 8), (674, map_slice 3043 6), (675, map_slice 3049 7),
    (676, map_slice 3056 6), (677, map_slice 3062 7), (678, map_slice 3069 7),
    (679, map_slice 3076 6), (680, map_slice 3082 7), (681, map_slice 3089 7),
    (682, map_slice 3096 6), (683, map_slice 3102 8), (684, map_slice 3110 7),
    (685, map_slice 3117 8), (686, map_slice 3125 7), (687, map_slice 3132 6),
    (688, map_slice 3138 7), (689, map_slice 3145 8), (690, map_slice 3153 7),
    (691, map_slice 3160 7), (692, map_slice 3167 8), (693, map_slice 3175 7),
    (694, map_slice 3182 8), (695, map_slice 3190 7), (696, map_slice 3197 8),
    (697, map_slice 3205 9), (698, map_slice 3214 8), (699, map_slice 3222 8),
    (700, map_slice 3230 7), (701, map_slice 3237 8), (702, map_slice 3245 8),
    (703, map_slice 3253 7), (704, map_slice 3260 8), (705, map_slice 3268 7),
    (706, map_slice 3275 8), (707, map_slice 3283 7), (708, map_slice 3290 8),
    (709, map_slice 3298 9), (710, map_slice 3307 8), (711, map_slice 3315 8),
    (712, map_slice 3323 7), (713, map_slice 3330 8), (714, map_slice 3338 8),
    (715, map_slice 3346 7), (716, map_slice 3353 8), (717, map_slice 3361 9),
    (718, map_slice 3370 8), (719, map_slice 3378 8), (720, map_slice 3386 9),
    (721, map_slice 3395 9), (722, map_slice 3404 8), (723, map_slice 3412 7),
    (724, map_slice 3419 9), (725, map_slice 3428 8), (726, map_slice 3436 7),
    (727, map_slice 3443 5), (728, map_slice 3448 7), (729, map_slice 3455 7),
    (730, map_slice 3462 6), (731, map_slice 3468 8), (732, map_slice 3476 7),
    (733, map_slice 3483 8), (734, map_slice 3491 7), (735, map_slice 3498 6),
    (736, map_slice 3504 7), (737, map_slice 3511 8), (738, map_slice 3519 7),
    (739, map_slice 3526 7), (740, map_slice 3533 8), (741, map_slice 3541 7),
    (742, map_slice 3548 8), (743, map_slice 3556 7), (744, map_slice 3563 8),
    (745, map_slice 3571 9), (746, map_slice 3580 8), (747, map_slice 3588 8),
    (748, map_slice 3596 7), (749, map_slice 3603 8), (750, map_slice 3611 8),
    (751, map_slice 3619 7), (752, map_slice 3626 8), (753, map_slice 3634 7),
    (754, map_slice 3641 8), (755, map_slice 3649 7), (756, map_slice 3656 8),
    (757, map_slice 3664 9), (758, map_slice 3673 8), (759, map_slice 3681 8)]"

definition field_map_slices_5 :: "(nat \<times> TSMapSlice) list" where "field_map_slices_5 = [
    (760, map_slice 3689 7), (761, map_slice 3696 8), (762, map_slice 3704 8),
    (763, map_slice 3712 7), (764, map_slice 3719 8), (765, map_slice 3727 9),
    (766, map_slice 3736 8), (767, map_slice 3744 8), (768, map_slice 3752 9),
    (769, map_slice 3761 9), (770, map_slice 3770 8), (771, map_slice 3778 7),
    (772, map_slice 3785 9), (773, map_slice 3794 8), (774, map_slice 3802 7),
    (775, map_slice 3809 7), (776, map_slice 3816 8), (777, map_slice 3824 8),
    (778, map_slice 3832 7), (779, map_slice 3839 7), (780, map_slice 3846 6),
    (781, map_slice 3852 8), (782, map_slice 3860 7), (783, map_slice 3867 8),
    (784, map_slice 3875 7), (785, map_slice 3882 8), (786, map_slice 3890 8),
    (787, map_slice 3898 7), (788, map_slice 3905 9), (789, map_slice 3914 8),
    (790, map_slice 3922 9), (791, map_slice 3931 8), (792, map_slice 3939 7),
    (793, map_slice 3946 8), (794, map_slice 3954 9), (795, map_slice 3963 8),
    (796, map_slice 3971 8), (797, map_slice 3979 8), (798, map_slice 3987 8),
    (799, map_slice 3995 7), (800, map_slice 4002 9), (801, map_slice 4011 8),
    (802, map_slice 4019 9), (803, map_slice 4028 8), (804, map_slice 4036 7),
    (805, map_slice 4043 8), (806, map_slice 4051 9), (807, map_slice 4060 8),
    (808, map_slice 4068 8), (809, map_slice 4076 9), (810, map_slice 4085 8),
    (811, map_slice 4093 9), (812, map_slice 4102 8), (813, map_slice 4110 9),
    (814, map_slice 4119 10), (815, map_slice 4129 9), (816, map_slice 4138 9),
    (817, map_slice 4147 8), (818, map_slice 4155 9), (819, map_slice 4164 9),
    (820, map_slice 4173 8), (821, map_slice 4181 7), (822, map_slice 4188 8),
    (823, map_slice 4196 8), (824, map_slice 4204 7), (825, map_slice 4211 7),
    (826, map_slice 4218 6), (827, map_slice 4224 8), (828, map_slice 4232 7),
    (829, map_slice 4239 8), (830, map_slice 4247 7), (831, map_slice 4254 8),
    (832, map_slice 4262 8), (833, map_slice 4270 7), (834, map_slice 4277 9),
    (835, map_slice 4286 8), (836, map_slice 4294 9), (837, map_slice 4303 8),
    (838, map_slice 4311 7), (839, map_slice 4318 8), (840, map_slice 4326 9),
    (841, map_slice 4335 8), (842, map_slice 4343 8), (843, map_slice 4351 8),
    (844, map_slice 4359 8), (845, map_slice 4367 7), (846, map_slice 4374 9),
    (847, map_slice 4383 8), (848, map_slice 4391 9), (849, map_slice 4400 8),
    (850, map_slice 4408 7), (851, map_slice 4415 8), (852, map_slice 4423 9),
    (853, map_slice 4432 8), (854, map_slice 4440 8), (855, map_slice 4448 9),
    (856, map_slice 4457 8), (857, map_slice 4465 9), (858, map_slice 4474 8),
    (859, map_slice 4482 9), (860, map_slice 4491 10), (861, map_slice 4501 9),
    (862, map_slice 4510 9), (863, map_slice 4519 8), (864, map_slice 4527 9),
    (865, map_slice 4536 9), (866, map_slice 4545 8), (867, map_slice 4553 8),
    (868, map_slice 4561 7), (869, map_slice 4568 8), (870, map_slice 4576 8),
    (871, map_slice 4584 7), (872, map_slice 4591 8), (873, map_slice 4599 9),
    (874, map_slice 4608 9), (875, map_slice 4617 8), (876, map_slice 4625 8),
    (877, map_slice 4633 7), (878, map_slice 4640 9), (879, map_slice 4649 8),
    (880, map_slice 4657 9), (881, map_slice 4666 8), (882, map_slice 4674 8),
    (883, map_slice 4682 9), (884, map_slice 4691 9), (885, map_slice 4700 8),
    (886, map_slice 4708 8), (887, map_slice 4716 7), (888, map_slice 4723 9),
    (889, map_slice 4732 8), (890, map_slice 4740 9), (891, map_slice 4749 8),
    (892, map_slice 4757 9), (893, map_slice 4766 9), (894, map_slice 4775 8),
    (895, map_slice 4783 10), (896, map_slice 4793 9), (897, map_slice 4802 10),
    (898, map_slice 4812 9), (899, map_slice 4821 8), (900, map_slice 4829 9),
    (901, map_slice 4838 10), (902, map_slice 4848 9), (903, map_slice 4857 9),
    (904, map_slice 4866 8), (905, map_slice 4874 7), (906, map_slice 4881 8),
    (907, map_slice 4889 8), (908, map_slice 4897 7), (909, map_slice 4904 8)]"

definition field_map_slices_6 :: "(nat \<times> TSMapSlice) list" where "field_map_slices_6 = [
    (910, map_slice 4912 9), (911, map_slice 4921 9), (912, map_slice 4930 8),
    (913, map_slice 4938 8), (914, map_slice 4946 7), (915, map_slice 4953 9),
    (916, map_slice 4962 8), (917, map_slice 4970 9), (918, map_slice 4979 8),
    (919, map_slice 4987 8), (920, map_slice 4995 9), (921, map_slice 5004 9),
    (922, map_slice 5013 8), (923, map_slice 5021 8), (924, map_slice 5029 7),
    (925, map_slice 5036 9), (926, map_slice 5045 8), (927, map_slice 5053 9),
    (928, map_slice 5062 8), (929, map_slice 5070 9), (930, map_slice 5079 9),
    (931, map_slice 5088 8), (932, map_slice 5096 10), (933, map_slice 5106 9),
    (934, map_slice 5115 10), (935, map_slice 5125 9), (936, map_slice 5134 8),
    (937, map_slice 5142 9), (938, map_slice 5151 10), (939, map_slice 5161 9),
    (940, map_slice 5170 9), (941, map_slice 5179 8), (942, map_slice 5187 9),
    (943, map_slice 5196 8), (944, map_slice 5204 9), (945, map_slice 5213 9),
    (946, map_slice 5222 8), (947, map_slice 5230 9), (948, map_slice 5239 8),
    (949, map_slice 5247 9), (950, map_slice 5256 9), (951, map_slice 5265 8),
    (952, map_slice 5273 9), (953, map_slice 5282 10), (954, map_slice 5292 10),
    (955, map_slice 5302 9), (956, map_slice 5311 9), (957, map_slice 5320 8),
    (958, map_slice 5328 10), (959, map_slice 5338 9), (960, map_slice 5347 10),
    (961, map_slice 5357 9), (962, map_slice 5366 8), (963, map_slice 5374 9),
    (964, map_slice 5383 8), (965, map_slice 5391 9), (966, map_slice 5400 9),
    (967, map_slice 5409 8), (968, map_slice 5417 9), (969, map_slice 5426 8),
    (970, map_slice 5434 9), (971, map_slice 5443 9), (972, map_slice 5452 8),
    (973, map_slice 5460 9), (974, map_slice 5469 10), (975, map_slice 5479 10),
    (976, map_slice 5489 9), (977, map_slice 5498 9), (978, map_slice 5507 8),
    (979, map_slice 5515 10), (980, map_slice 5525 9), (981, map_slice 5534 10),
    (982, map_slice 5544 9), (983, map_slice 5553 9), (984, map_slice 5562 9),
    (985, map_slice 5571 10), (986, map_slice 5581 9), (987, map_slice 5590 10),
    (988, map_slice 5600 10), (989, map_slice 5610 9), (990, map_slice 5619 9),
    (991, map_slice 5628 9), (992, map_slice 5637 10), (993, map_slice 5647 9),
    (994, map_slice 5656 10), (995, map_slice 5666 10), (996, map_slice 5676 9),
    (997, map_slice 5685 10), (998, map_slice 5695 10)]"

definition field_map_slice_rows :: "(nat \<times> TSMapSlice) list" where
  "field_map_slice_rows = concat [
    field_map_slices_0, field_map_slices_1, field_map_slices_2, field_map_slices_3, field_map_slices_4,
    field_map_slices_5, field_map_slices_6]"

definition ts_field_map_slices :: "TSMapSlice list" where
  "ts_field_map_slices = designated (map_slice 0 0) PRODUCTION_ID_COUNT field_map_slice_rows"

definition field_map_entries_0 :: "(nat \<times> TSFieldMapEntry list) list" where "field_map_entries_0 = [
    (0, [field_entry field_name 0]), (1, [inherited_entry field_name 1]),
    (2, [field_entry field_argument 1]), (3, [field_entry field_value 0]),
    (4, [field_entry field_code 1]),
    (5, [field_entry field_argument 1, field_entry field_operator 0]),
    (7, [field_entry field_arguments 1, field_entry field_function 0]),
    (9, [inherited_entry field_operators 1]), (10, [field_entry field_definition 1]),
    (11, [field_entry field_name 0, inherited_entry field_name 1]),
    (13, [inherited_entry field_argument 2]),
    (14, [field_entry field_argument 1, inherited_entry field_argument 2]),
    (16, [field_entry field_cause 2]), (17, [field_entry field_body 2]),
    (18, [field_entry field_name 0, field_entry field_value 2]),
    (20, [field_entry field_left 0, field_entry field_type 2]),
    (22, [field_entry field_left 0, field_entry field_right 2]),
    (24, [field_entry field_left 0, field_entry field_operator 1, field_entry field_right 2]),
    (27, [field_entry field_comptime 2]),
    (28, [field_entry field_attribute 2, field_entry field_object 0]),
    (30, [field_entry field_operators 0]),
    (31, [field_entry field_arguments 2, field_entry field_function 0]),
    (33, [inherited_entry field_operators 0, inherited_entry field_operators 1]),
    (35, [field_entry field_definition 1, field_entry field_definition 2]),
    (37, [field_entry field_expression 1]), (38, [field_entry field_name 1]),
    (39, [inherited_entry field_name 0, inherited_entry field_name 1]),
    (41, [field_entry field_comptime 2, field_entry field_name 0]),
    (43, [inherited_entry field_name 3]),
    (44, [field_entry field_module_name 1, inherited_entry field_name 3]),
    (46, [field_entry field_module_name 1]), (47, [field_entry field_body 1]),
    (48, [inherited_entry field_argument 0, inherited_entry field_argument 1]),
    (50, [field_entry field_left 1, field_entry field_type 3]),
    (52, [field_entry field_left 1, field_entry field_right 3]), (54, [field_entry field_cause 3]),
    (55, [field_entry field_body 3, field_entry field_name 1]),
    (57, [field_entry field_condition 1, field_entry field_consequence 3]),
    (59, [field_entry field_subject 1]),
    (60, [inherited_entry field_alternative 3, field_entry field_body 3, field_entry field_subject 1]),
    (63, [inherited_entry field_subject 0, inherited_entry field_subject 1]),
    (65, [field_entry field_body 3, field_entry field_condition 1]),
    (67, [field_entry field_body 3]), (68, [field_entry field_key 0, field_entry field_value 2]),
    (70, [field_entry field_type 2]),
    (71, [field_entry field_body 3, field_entry field_parameters 1]),
    (73, [field_entry field_subscript 2, field_entry field_value 0]),
    (75, [field_entry field_expression 1, field_entry field_type_conversion 2]),
    (77, [field_entry field_expression 1, field_entry field_format_specifier 2]),
    (79, [field_entry field_name 1, field_entry field_type_parameters 2, field_entry field_value 4]),
    (82, [field_entry field_body 3, field_entry field_body 4, field_entry field_name 1]),
    (85, [field_entry field_body 4, field_entry field_name 1, field_entry field_parameters 2]),
    (88, [field_entry field_alternative 0]),
    (89, [field_entry field_alternative 4, field_entry field_condition 1, field_entry field_consequence 3]),
    (92, [inherited_entry field_alternative 4, field_entry field_condition 1, field_entry field_consequence 3])]"

definition field_map_entries_1 :: "(nat \<times> TSFieldMapEntry list) list" where "field_map_entries_1 = [

    (95, [field_entry field_condition 1, field_entry field_consequence 3, field_entry field_consequence 4]),
    (98, [inherited_entry field_alternative 4, field_entry field_body 4, field_entry field_subject 1]),
    (101, [inherited_entry field_alternative 4, field_entry field_body 4, field_entry field_subject 1, inherited_entry field_subject 2]),
    (105, [field_entry field_body 4]),
    (106, [field_entry field_alternative 4, field_entry field_body 3, field_entry field_condition 1]),
    (109, [field_entry field_body 3, field_entry field_body 4, field_entry field_condition 1]),
    (112, [field_entry field_body 2, field_entry field_body 3]),
    (114, [field_entry field_body 3, field_entry field_body 4]),
    (116, [field_entry field_raises_type 1]),
    (117, [inherited_entry field_raises_type 0, inherited_entry field_raises_type 1]),
    (119, [inherited_entry field_raises_type 3]), (120, [field_entry field_parameter 2]),
    (121, [field_entry field_type_parameters 1]),
    (122, [field_entry field_body 4, field_entry field_name 1, field_entry field_superclasses 2]),
    (125, [field_entry field_body 4, field_entry field_name 1, field_entry field_type_parameters 2]),
    (128, [field_entry field_type 3]),
    (129, [field_entry field_left 0, field_entry field_right 4, field_entry field_type 2]),
    (132, [field_entry field_subscript 1]),
    (133, [field_entry field_subscript 2, inherited_entry field_subscript 3, field_entry field_value 0]),
    (136, [inherited_entry field_subscript 0, inherited_entry field_subscript 1]),
    (138, [field_entry field_expression 1, field_entry field_type_conversion 3]),
    (140, [field_entry field_expression 1, field_entry field_format_specifier 3]),
    (142, [field_entry field_expression 1, field_entry field_format_specifier 3, field_entry field_type_conversion 2]),
    (145, [inherited_entry field_name 4]),
    (146, [field_entry field_module_name 1, inherited_entry field_name 4]),
    (148, [inherited_entry field_default 2, inherited_entry field_type 2]),
    (150, [inherited_entry field_default 0, inherited_entry field_default 1, inherited_entry field_type 0, inherited_entry field_type 1]),
    (154, [field_entry field_left 1, field_entry field_right 5, field_entry field_type 3]),
    (157, [field_entry field_body 4, field_entry field_body 5, field_entry field_name 1, field_entry field_parameters 2]),
    (161, [inherited_entry field_alternative 4, field_entry field_alternative 5, field_entry field_condition 1, field_entry field_consequence 3]),
    (165, [inherited_entry field_alternative 0, inherited_entry field_alternative 1]),
    (167, [field_entry field_alternative 5, field_entry field_condition 1, field_entry field_consequence 3, field_entry field_consequence 4]),
    (171, [inherited_entry field_alternative 5, field_entry field_condition 1, field_entry field_consequence 3, field_entry field_consequence 4]),
    (175, [inherited_entry field_alternative 1]),
    (176, [inherited_entry field_alternative 5, field_entry field_body 5, field_entry field_subject 1, inherited_entry field_subject 2]),
    (180, [field_entry field_body 4, field_entry field_body 5]),
    (182, [field_entry field_body 5, field_entry field_name 2, field_entry field_parameters 3]),
    (185, [field_entry field_body 5, field_entry field_left 1, field_entry field_right 3]),
    (188, [field_entry field_alternative 5, field_entry field_body 3, field_entry field_body 4, field_entry field_condition 1]),
    (192, [field_entry field_body 5, field_entry field_name 1, field_entry field_parameters 2]),
    (195, [field_entry field_body 5, field_entry field_name 1, field_entry field_parameters 2, inherited_entry field_raises_type 3]),
    (199, [field_entry field_body 5, field_entry field_name 1, field_entry field_parameters 3, field_entry field_type_parameters 2])]"

definition field_map_entries_2 :: "(nat \<times> TSFieldMapEntry list) list" where "field_map_entries_2 = [
    (203, [field_entry field_return_type 4]), (204, [field_entry field_parameter 3]),
    (205, [field_entry field_parameter 2, inherited_entry field_raises_type 4]),
    (207, [field_entry field_parameter 1]),
    (208, [field_entry field_parameter 2, inherited_entry field_parameter 3]),
    (210, [inherited_entry field_parameter 0, inherited_entry field_parameter 1]),
    (212, [inherited_entry field_raises_type 4, field_entry field_type_parameters 1]),
    (214, [field_entry field_parameter 3, field_entry field_type_parameters 1]),
    (216, [field_entry field_body 4, field_entry field_body 5, field_entry field_name 1, field_entry field_superclasses 2]),
    (220, [field_entry field_body 4, field_entry field_body 5, field_entry field_name 1, field_entry field_type_parameters 2]),
    (224, [field_entry field_body 5, field_entry field_name 1, field_entry field_superclasses 3, field_entry field_type_parameters 2]),
    (228, [field_entry field_body 4, field_entry field_body 5, field_entry field_name 1, field_entry field_supertraits 2]),
    (232, [field_entry field_name 0, field_entry field_type 2, field_entry field_value 4]),
    (235, [field_entry field_expression 1, field_entry field_format_specifier 4, field_entry field_type_conversion 3]),
    (238, [field_entry field_left 2, field_entry field_right 4]),
    (240, [field_entry field_left 1, field_entry field_right 3, field_entry field_right 4]),
    (243, [field_entry field_default 3]),
    (244, [inherited_entry field_default 3, inherited_entry field_type 3]),
    (246, [field_entry field_name 1, field_entry field_type 4, field_entry field_type_parameters 2, field_entry field_value 6]),
    (250, [inherited_entry field_alternative 5, field_entry field_alternative 6, field_entry field_condition 1, field_entry field_consequence 3, field_entry field_consequence 4]),
    (255, [field_entry field_body 6, field_entry field_left 2, field_entry field_right 4]),
    (258, [field_entry field_body 5, field_entry field_body 6, field_entry field_name 2, field_entry field_parameters 3]),
    (262, [field_entry field_body 6, field_entry field_name 2, field_entry field_parameters 3]),
    (265, [field_entry field_body 6, field_entry field_name 2, field_entry field_parameters 3, inherited_entry field_raises_type 4]),
    (269, [field_entry field_body 6, field_entry field_name 2, field_entry field_parameters 4, field_entry field_type_parameters 3]),
    (273, [field_entry field_alternative 6, field_entry field_body 5, field_entry field_left 1, field_entry field_right 3]),
    (277, [field_entry field_body 5, field_entry field_body 6, field_entry field_left 1, field_entry field_right 3]),
    (281, [field_entry field_body 6, field_entry field_name 1, field_entry field_parameters 2, field_entry field_return_type 4]),
    (285, [field_entry field_body 5, field_entry field_body 6, field_entry field_name 1, field_entry field_parameters 2]),
    (289, [field_entry field_body 6, field_entry field_name 1, field_entry field_parameters 2]),
    (292, [field_entry field_body 5, field_entry field_body 6, field_entry field_name 1, field_entry field_parameters 2, inherited_entry field_raises_type 3]),
    (297, [field_entry field_body 6, field_entry field_name 1, field_entry field_parameters 2, inherited_entry field_raises_type 3]),
    (301, [field_entry field_body 6, field_entry field_name 1, field_entry field_parameters 2, inherited_entry field_raises_type 4]),
    (305, [field_entry field_body 5, field_entry field_body 6, field_entry field_name 1, field_entry field_parameters 3, field_entry field_type_parameters 2]),
    (310, [field_entry field_body 6, field_entry field_name 1, field_entry field_parameters 3, field_entry field_type_parameters 2])]"

definition field_map_entries_3 :: "(nat \<times> TSFieldMapEntry list) list" where "field_map_entries_3 = [

    (314, [field_entry field_body 6, field_entry field_name 1, field_entry field_parameters 3, inherited_entry field_raises_type 4, field_entry field_type_parameters 2]),
    (319, [field_entry field_return_type 5]),
    (320, [inherited_entry field_raises_type 3, field_entry field_return_type 5]),
    (322, [field_entry field_parameter 3, inherited_entry field_raises_type 5]),
    (324, [field_entry field_parameter 3, inherited_entry field_parameter 4]),
    (326, [field_entry field_parameter 2, field_entry field_return_type 5]),
    (328, [field_entry field_parameter 2, inherited_entry field_raises_type 5]),
    (330, [field_entry field_parameter 2, inherited_entry field_parameter 3, inherited_entry field_raises_type 5]),
    (333, [field_entry field_return_type 5, field_entry field_type_parameters 1]),
    (335, [field_entry field_parameter 4, field_entry field_type_parameters 1]),
    (337, [field_entry field_parameter 3, inherited_entry field_raises_type 5, field_entry field_type_parameters 1]),
    (340, [field_entry field_parameter 3, inherited_entry field_parameter 4, field_entry field_type_parameters 1]),
    (343, [field_entry field_body 5, field_entry field_body 6, field_entry field_name 1, field_entry field_superclasses 3, field_entry field_type_parameters 2]),
    (348, [field_entry field_name 1, field_entry field_type 3, field_entry field_value 5]),
    (351, [field_entry field_left 2, field_entry field_right 4, field_entry field_right 5]),
    (354, [field_entry field_left 3, field_entry field_right 5]),
    (356, [inherited_entry field_default 4, field_entry field_type 3, inherited_entry field_type 4]),
    (359, [field_entry field_default 3, inherited_entry field_default 4, inherited_entry field_type 4]),
    (362, [inherited_entry field_key 1, inherited_entry field_value 1]),
    (364, [field_entry field_consequence 3]),
    (365, [field_entry field_alternative 7, field_entry field_body 6, field_entry field_left 2, field_entry field_right 4]),
    (369, [field_entry field_body 6, field_entry field_body 7, field_entry field_left 2, field_entry field_right 4]),
    (373, [field_entry field_body 7, field_entry field_left 3, field_entry field_right 5]),
    (376, [field_entry field_body 7, field_entry field_name 2, field_entry field_parameters 3, field_entry field_return_type 5]),
    (380, [field_entry field_body 6, field_entry field_body 7, field_entry field_name 2, field_entry field_parameters 3]),
    (384, [field_entry field_body 7, field_entry field_name 2, field_entry field_parameters 3]),
    (387, [field_entry field_body 6, field_entry field_body 7, field_entry field_name 2, field_entry field_parameters 3, inherited_entry field_raises_type 4]),
    (392, [field_entry field_body 7, field_entry field_name 2, field_entry field_parameters 3, inherited_entry field_raises_type 4]),
    (396, [field_entry field_body 7, field_entry field_name 2, field_entry field_parameters 3, inherited_entry field_raises_type 5]),
    (400, [field_entry field_body 6, field_entry field_body 7, field_entry field_name 2, field_entry field_parameters 4, field_entry field_type_parameters 3]),
    (405, [field_entry field_body 7, field_entry field_name 2, field_entry field_parameters 4, field_entry field_type_parameters 3]),
    (409, [field_entry field_body 7, field_entry field_name 2, field_entry field_parameters 4, inherited_entry field_raises_type 5, field_entry field_type_parameters 3]),
    (414, [field_entry field_alternative 7, field_entry field_body 5, field_entry field_body 6, field_entry field_left 1, field_entry field_right 3]),
    (419, [field_entry field_body 7, field_entry field_name 1, field_entry field_parameters 2, field_entry field_return_type 5]),
    (423, [field_entry field_body 6, field_entry field_body 7, field_entry field_name 1, field_entry field_parameters 2, field_entry field_return_type 4])]"

definition field_map_entries_4 :: "(nat \<times> TSFieldMapEntry list) list" where "field_map_entries_4 = [

    (428, [field_entry field_body 7, field_entry field_name 1, field_entry field_parameters 2, field_entry field_return_type 4]),
    (432, [field_entry field_body 6, field_entry field_body 7, field_entry field_name 1, field_entry field_parameters 2]),
    (436, [field_entry field_body 7, field_entry field_name 1, field_entry field_parameters 2, inherited_entry field_raises_type 3, field_entry field_return_type 5]),
    (441, [field_entry field_body 6, field_entry field_body 7, field_entry field_name 1, field_entry field_parameters 2, inherited_entry field_raises_type 3]),
    (446, [field_entry field_body 7, field_entry field_name 1, field_entry field_parameters 2, inherited_entry field_raises_type 3]),
    (450, [field_entry field_body 7, field_entry field_name 1, field_entry field_parameters 2]),
    (453, [field_entry field_body 6, field_entry field_body 7, field_entry field_name 1, field_entry field_parameters 2, inherited_entry field_raises_type 4]),
    (458, [field_entry field_body 7, field_entry field_name 1, field_entry field_parameters 2, inherited_entry field_raises_type 4]),
    (462, [field_entry field_body 7, field_entry field_name 1, field_entry field_parameters 3, field_entry field_return_type 5, field_entry field_type_parameters 2]),
    (467, [field_entry field_body 6, field_entry field_body 7, field_entry field_name 1, field_entry field_parameters 3, field_entry field_type_parameters 2]),
    (472, [field_entry field_body 7, field_entry field_name 1, field_entry field_parameters 3, field_entry field_type_parameters 2]),
    (476, [field_entry field_body 6, field_entry field_body 7, field_entry field_name 1, field_entry field_parameters 3, inherited_entry field_raises_type 4, field_entry field_type_parameters 2]),
    (482, [field_entry field_body 7, field_entry field_name 1, field_entry field_parameters 3, inherited_entry field_raises_type 4, field_entry field_type_parameters 2]),
    (487, [field_entry field_body 7, field_entry field_name 1, field_entry field_parameters 3, inherited_entry field_raises_type 5, field_entry field_type_parameters 2]),
    (492, [field_entry field_return_type 6]),
    (493, [inherited_entry field_raises_type 3, field_entry field_return_type 6]),
    (495, [field_entry field_parameter 3, field_entry field_return_type 6]),
    (497, [field_entry field_parameter 3, inherited_entry field_raises_type 6]),
    (499, [field_entry field_parameter 3, inherited_entry field_parameter 4, inherited_entry field_raises_type 6]),
    (502, [field_entry field_parameter 2, field_entry field_return_type 6]),
    (504, [field_entry field_parameter 2, inherited_entry field_raises_type 4, field_entry field_return_type 6]),
    (507, [field_entry field_parameter 2, inherited_entry field_parameter 3, field_entry field_return_type 6]),
    (510, [field_entry field_parameter 2, inherited_entry field_parameter 3, inherited_entry field_raises_type 6]),
    (513, [field_entry field_return_type 6, field_entry field_type_parameters 1]),
    (515, [inherited_entry field_raises_type 4, field_entry field_return_type 6, field_entry field_type_parameters 1]),
    (518, [field_entry field_parameter 4, inherited_entry field_raises_type 6, field_entry field_type_parameters 1]),
    (521, [field_entry field_parameter 4, inherited_entry field_parameter 5, field_entry field_type_parameters 1]),
    (524, [field_entry field_parameter 3, field_entry field_return_type 6, field_entry field_type_parameters 1]),
    (527, [field_entry field_parameter 3, inherited_entry field_raises_type 6, field_entry field_type_parameters 1]),
    (530, [field_entry field_parameter 3, inherited_entry field_parameter 4, inherited_entry field_raises_type 6, field_entry field_type_parameters 1]),
    (534, [field_entry field_left 3, field_entry field_right 5, field_entry field_right 6]),
    (537, [field_entry field_default 5, field_entry field_type 3]),
    (539, [field_entry field_default 3, inherited_entry field_default 5, inherited_entry field_type 5])]"

definition field_map_entries_5 :: "(nat \<times> TSFieldMapEntry list) list" where "field_map_entries_5 = [

    (542, [inherited_entry field_key 1, inherited_entry field_key 2, inherited_entry field_value 1, inherited_entry field_value 2]),
    (546, [inherited_entry field_key 0, inherited_entry field_key 1, inherited_entry field_value 0, inherited_entry field_value 1]),
    (550, [inherited_entry field_key 2, inherited_entry field_value 2]),
    (552, [field_entry field_consequence 4]),
    (553, [field_entry field_consequence 3, field_entry field_consequence 4]),
    (555, [field_entry field_consequence 4, field_entry field_guard 2]),
    (557, [field_entry field_alternative 8, field_entry field_body 6, field_entry field_body 7, field_entry field_left 2, field_entry field_right 4]),
    (562, [field_entry field_alternative 8, field_entry field_body 7, field_entry field_left 3, field_entry field_right 5]),
    (566, [field_entry field_body 7, field_entry field_body 8, field_entry field_left 3, field_entry field_right 5]),
    (570, [field_entry field_body 8, field_entry field_name 2, field_entry field_parameters 3, field_entry field_return_type 6]),
    (574, [field_entry field_body 7, field_entry field_body 8, field_entry field_name 2, field_entry field_parameters 3, field_entry field_return_type 5]),
    (579, [field_entry field_body 8, field_entry field_name 2, field_entry field_parameters 3, field_entry field_return_type 5]),
    (583, [field_entry field_body 7, field_entry field_body 8, field_entry field_name 2, field_entry field_parameters 3]),
    (587, [field_entry field_body 8, field_entry field_name 2, field_entry field_parameters 3, inherited_entry field_raises_type 4, field_entry field_return_type 6]),
    (592, [field_entry field_body 7, field_entry field_body 8, field_entry field_name 2, field_entry field_parameters 3, inherited_entry field_raises_type 4]),
    (597, [field_entry field_body 8, field_entry field_name 2, field_entry field_parameters 3, inherited_entry field_raises_type 4]),
    (601, [field_entry field_body 8, field_entry field_name 2, field_entry field_parameters 3]),
    (604, [field_entry field_body 7, field_entry field_body 8, field_entry field_name 2, field_entry field_parameters 3, inherited_entry field_raises_type 5]),
    (609, [field_entry field_body 8, field_entry field_name 2, field_entry field_parameters 3, inherited_entry field_raises_type 5]),
    (613, [field_entry field_body 8, field_entry field_name 2, field_entry field_parameters 4, field_entry field_return_type 6, field_entry field_type_parameters 3]),
    (618, [field_entry field_body 7, field_entry field_body 8, field_entry field_name 2, field_entry field_parameters 4, field_entry field_type_parameters 3]),
    (623, [field_entry field_body 8, field_entry field_name 2, field_entry field_parameters 4, field_entry field_type_parameters 3]),
    (627, [field_entry field_body 7, field_entry field_body 8, field_entry field_name 2, field_entry field_parameters 4, inherited_entry field_raises_type 5, field_entry field_type_parameters 3]),
    (633, [field_entry field_body 8, field_entry field_name 2, field_entry field_parameters 4, inherited_entry field_raises_type 5, field_entry field_type_parameters 3]),
    (638, [field_entry field_body 8, field_entry field_name 2, field_entry field_parameters 4, inherited_entry field_raises_type 6, field_entry field_type_parameters 3]),
    (643, [field_entry field_body 8, field_entry field_name 2, field_entry field_name 5, field_entry field_parameters 3, field_entry field_parameters 6]),
    (648, [field_entry field_body 7, field_entry field_body 8, field_entry field_name 1, field_entry field_parameters 2, field_entry field_return_type 5]),
    (653, [field_entry field_body 8, field_entry field_name 1, field_entry field_parameters 2, field_entry field_return_type 5]),
    (657, [field_entry field_body 7, field_entry field_body 8, field_entry field_name 1, field_entry field_parameters 2, field_entry field_return_type 4])]"

definition field_map_entries_6 :: "(nat \<times> TSFieldMapEntry list) list" where "field_map_entries_6 = [

    (662, [field_entry field_body 8, field_entry field_name 1, field_entry field_parameters 2, field_entry field_return_type 6]),
    (666, [field_entry field_body 8, field_entry field_name 1, field_entry field_parameters 2, inherited_entry field_raises_type 3, field_entry field_return_type 6]),
    (671, [field_entry field_body 7, field_entry field_body 8, field_entry field_name 1, field_entry field_parameters 2, inherited_entry field_raises_type 3, field_entry field_return_type 5]),
    (677, [field_entry field_body 8, field_entry field_name 1, field_entry field_parameters 2, inherited_entry field_raises_type 3, field_entry field_return_type 5]),
    (682, [field_entry field_body 7, field_entry field_body 8, field_entry field_name 1, field_entry field_parameters 2, inherited_entry field_raises_type 3]),
    (687, [field_entry field_body 7, field_entry field_body 8, field_entry field_name 1, field_entry field_parameters 2]),
    (691, [field_entry field_body 8, field_entry field_name 1, field_entry field_parameters 2, inherited_entry field_raises_type 4, field_entry field_return_type 6]),
    (696, [field_entry field_body 7, field_entry field_body 8, field_entry field_name 1, field_entry field_parameters 2, inherited_entry field_raises_type 4]),
    (701, [field_entry field_body 8, field_entry field_name 1, field_entry field_parameters 2, inherited_entry field_raises_type 4]),
    (705, [field_entry field_body 8, field_entry field_name 1, field_entry field_parameters 3, field_entry field_return_type 6, field_entry field_type_parameters 2]),
    (710, [field_entry field_body 7, field_entry field_body 8, field_entry field_name 1, field_entry field_parameters 3, field_entry field_return_type 5, field_entry field_type_parameters 2]),
    (716, [field_entry field_body 8, field_entry field_name 1, field_entry field_parameters 3, field_entry field_return_type 5, field_entry field_type_parameters 2]),
    (721, [field_entry field_body 7, field_entry field_body 8, field_entry field_name 1, field_entry field_parameters 3, field_entry field_type_parameters 2]),
    (726, [field_entry field_body 8, field_entry field_name 1, field_entry field_parameters 3, inherited_entry field_raises_type 4, field_entry field_return_type 6, field_entry field_type_parameters 2]),
    (732, [field_entry field_body 7, field_entry field_body 8, field_entry field_name 1, field_entry field_parameters 3, inherited_entry field_raises_type 4, field_entry field_type_parameters 2]),
    (738, [field_entry field_body 8, field_entry field_name 1, field_entry field_parameters 3, inherited_entry field_raises_type 4, field_entry field_type_parameters 2]),
    (743, [field_entry field_body 8, field_entry field_name 1, field_entry field_parameters 3, field_entry field_type_parameters 2]),
    (747, [field_entry field_body 7, field_entry field_body 8, field_entry field_name 1, field_entry field_parameters 3, inherited_entry field_raises_type 5, field_entry field_type_parameters 2]),
    (753, [field_entry field_body 8, field_entry field_name 1, field_entry field_parameters 3, inherited_entry field_raises_type 5, field_entry field_type_parameters 2]),
    (758, [inherited_entry field_raises_type 3, field_entry field_return_type 7]),
    (760, [field_entry field_parameter 3, field_entry field_return_type 7]),
    (762, [field_entry field_parameter 3, inherited_entry field_raises_type 5, field_entry field_return_type 7]),
    (765, [field_entry field_parameter 3, inherited_entry field_parameter 4, field_entry field_return_type 7]),
    (768, [field_entry field_parameter 3, inherited_entry field_parameter 4, inherited_entry field_raises_type 7]),
    (771, [field_entry field_parameter 2, field_entry field_return_type 7]),
    (773, [field_entry field_parameter 2, inherited_entry field_raises_type 4, field_entry field_return_type 7]),
    (776, [field_entry field_parameter 2, inherited_entry field_raises_type 5, field_entry field_return_type 7]),
    (779, [field_entry field_parameter 2, inherited_entry field_parameter 3, field_entry field_return_type 7])]"

definition field_map_entries_7 :: "(nat \<times> TSFieldMapEntry list) list" where "field_map_entries_7 = [

    (782, [field_entry field_parameter 2, inherited_entry field_parameter 3, inherited_entry field_raises_type 5, field_entry field_return_type 7]),
    (786, [field_entry field_return_type 7, field_entry field_type_parameters 1]),
    (788, [inherited_entry field_raises_type 4, field_entry field_return_type 7, field_entry field_type_parameters 1]),
    (791, [field_entry field_parameter 4, field_entry field_return_type 7, field_entry field_type_parameters 1]),
    (794, [field_entry field_parameter 4, inherited_entry field_raises_type 7, field_entry field_type_parameters 1]),
    (797, [field_entry field_parameter 4, inherited_entry field_parameter 5, inherited_entry field_raises_type 7, field_entry field_type_parameters 1]),
    (801, [field_entry field_parameter 3, field_entry field_return_type 7, field_entry field_type_parameters 1]),
    (804, [field_entry field_parameter 3, inherited_entry field_raises_type 5, field_entry field_return_type 7, field_entry field_type_parameters 1]),
    (808, [field_entry field_parameter 3, inherited_entry field_parameter 4, field_entry field_return_type 7, field_entry field_type_parameters 1]),
    (812, [field_entry field_parameter 3, inherited_entry field_parameter 4, inherited_entry field_raises_type 7, field_entry field_type_parameters 1]),
    (816, [field_entry field_default 5, inherited_entry field_default 6, field_entry field_type 3, inherited_entry field_type 6]),
    (820, [field_entry field_consequence 4, field_entry field_consequence 5]),
    (822, [field_entry field_consequence 5, field_entry field_guard 3]),
    (824, [field_entry field_consequence 4, field_entry field_consequence 5, field_entry field_guard 2]),
    (827, [field_entry field_consequence 5]),
    (828, [field_entry field_alternative 9, field_entry field_body 7, field_entry field_body 8, field_entry field_left 3, field_entry field_right 5]),
    (833, [field_entry field_body 9, field_entry field_name 3, field_entry field_name 6, field_entry field_parameters 4, field_entry field_parameters 7]),
    (838, [field_entry field_body 8, field_entry field_body 9, field_entry field_name 2, field_entry field_parameters 3, field_entry field_return_type 6]),
    (843, [field_entry field_body 9, field_entry field_name 2, field_entry field_parameters 3, field_entry field_return_type 6]),
    (847, [field_entry field_body 8, field_entry field_body 9, field_entry field_name 2, field_entry field_parameters 3, field_entry field_return_type 5]),
    (852, [field_entry field_body 9, field_entry field_name 2, field_entry field_parameters 3, field_entry field_return_type 7]),
    (856, [field_entry field_body 9, field_entry field_name 2, field_entry field_parameters 3, inherited_entry field_raises_type 4, field_entry field_return_type 7]),
    (861, [field_entry field_body 8, field_entry field_body 9, field_entry field_name 2, field_entry field_parameters 3, inherited_entry field_raises_type 4, field_entry field_return_type 6]),
    (867, [field_entry field_body 9, field_entry field_name 2, field_entry field_parameters 3, inherited_entry field_raises_type 4, field_entry field_return_type 6]),
    (872, [field_entry field_body 8, field_entry field_body 9, field_entry field_name 2, field_entry field_parameters 3, inherited_entry field_raises_type 4]),
    (877, [field_entry field_body 8, field_entry field_body 9, field_entry field_name 2, field_entry field_parameters 3]),
    (881, [field_entry field_body 9, field_entry field_name 2, field_entry field_parameters 3, inherited_entry field_raises_type 5, field_entry field_return_type 7]),
    (886, [field_entry field_body 8, field_entry field_body 9, field_entry field_name 2, field_entry field_parameters 3, inherited_entry field_raises_type 5]),
    (891, [field_entry field_body 9, field_entry field_name 2, field_entry field_parameters 3, inherited_entry field_raises_type 5]),
    (895, [field_entry field_body 9, field_entry field_name 2, field_entry field_parameters 4, field_entry field_return_type 7, field_entry field_type_parameters 3])]"

definition field_map_entries_8 :: "(nat \<times> TSFieldMapEntry list) list" where "field_map_entries_8 = [

    (900, [field_entry field_body 8, field_entry field_body 9, field_entry field_name 2, field_entry field_parameters 4, field_entry field_return_type 6, field_entry field_type_parameters 3]),
    (906, [field_entry field_body 9, field_entry field_name 2, field_entry field_parameters 4, field_entry field_return_type 6, field_entry field_type_parameters 3]),
    (911, [field_entry field_body 8, field_entry field_body 9, field_entry field_name 2, field_entry field_parameters 4, field_entry field_type_parameters 3]),
    (916, [field_entry field_body 9, field_entry field_name 2, field_entry field_parameters 4, inherited_entry field_raises_type 5, field_entry field_return_type 7, field_entry field_type_parameters 3]),
    (922, [field_entry field_body 8, field_entry field_body 9, field_entry field_name 2, field_entry field_parameters 4, inherited_entry field_raises_type 5, field_entry field_type_parameters 3]),
    (928, [field_entry field_body 9, field_entry field_name 2, field_entry field_parameters 4, inherited_entry field_raises_type 5, field_entry field_type_parameters 3]),
    (933, [field_entry field_body 9, field_entry field_name 2, field_entry field_parameters 4, field_entry field_type_parameters 3]),
    (937, [field_entry field_body 8, field_entry field_body 9, field_entry field_name 2, field_entry field_parameters 4, inherited_entry field_raises_type 6, field_entry field_type_parameters 3]),
    (943, [field_entry field_body 9, field_entry field_name 2, field_entry field_parameters 4, inherited_entry field_raises_type 6, field_entry field_type_parameters 3]),
    (948, [field_entry field_body 8, field_entry field_body 9, field_entry field_name 2, field_entry field_name 5, field_entry field_parameters 3, field_entry field_parameters 6]),
    (954, [field_entry field_body 9, field_entry field_name 2, field_entry field_name 5, field_entry field_parameters 3, field_entry field_parameters 6]),
    (959, [field_entry field_body 9, field_entry field_name 2, field_entry field_name 5, field_entry field_parameters 3, field_entry field_parameters 6, inherited_entry field_raises_type 7]),
    (965, [field_entry field_body 9, field_entry field_name 2, field_entry field_name 5, field_entry field_parameters 3, field_entry field_parameters 7, field_entry field_type_parameters 6]),
    (971, [field_entry field_body 9, field_entry field_name 2, field_entry field_name 6, field_entry field_parameters 4, field_entry field_parameters 7, field_entry field_type_parameters 3]),
    (977, [field_entry field_body 8, field_entry field_body 9, field_entry field_name 1, field_entry field_parameters 2, field_entry field_return_type 5]),
    (982, [field_entry field_body 8, field_entry field_body 9, field_entry field_name 1, field_entry field_parameters 2, field_entry field_return_type 6]),
    (987, [field_entry field_body 9, field_entry field_name 1, field_entry field_parameters 2, field_entry field_return_type 6]),
    (991, [field_entry field_body 8, field_entry field_body 9, field_entry field_name 1, field_entry field_parameters 2, inherited_entry field_raises_type 3, field_entry field_return_type 6]),
    (997, [field_entry field_body 9, field_entry field_name 1, field_entry field_parameters 2, inherited_entry field_raises_type 3, field_entry field_return_type 6]),
    (1002, [field_entry field_body 8, field_entry field_body 9, field_entry field_name 1, field_entry field_parameters 2, inherited_entry field_raises_type 3, field_entry field_return_type 5]),
    (1008, [field_entry field_body 9, field_entry field_name 1, field_entry field_parameters 2, inherited_entry field_raises_type 3, field_entry field_return_type 7]),
    (1013, [field_entry field_body 9, field_entry field_name 1, field_entry field_parameters 2, field_entry field_return_type 7]),
    (1017, [field_entry field_body 9, field_entry field_name 1, field_entry field_parameters 2, inherited_entry field_raises_type 4, field_entry field_return_type 7])]"

definition field_map_entries_9 :: "(nat \<times> TSFieldMapEntry list) list" where "field_map_entries_9 = [

    (1022, [field_entry field_body 8, field_entry field_body 9, field_entry field_name 1, field_entry field_parameters 2, inherited_entry field_raises_type 4, field_entry field_return_type 6]),
    (1028, [field_entry field_body 9, field_entry field_name 1, field_entry field_parameters 2, inherited_entry field_raises_type 4, field_entry field_return_type 6]),
    (1033, [field_entry field_body 8, field_entry field_body 9, field_entry field_name 1, field_entry field_parameters 2, inherited_entry field_raises_type 4]),
    (1038, [field_entry field_body 8, field_entry field_body 9, field_entry field_name 1, field_entry field_parameters 3, field_entry field_return_type 6, field_entry field_type_parameters 2]),
    (1044, [field_entry field_body 9, field_entry field_name 1, field_entry field_parameters 3, field_entry field_return_type 6, field_entry field_type_parameters 2]),
    (1049, [field_entry field_body 8, field_entry field_body 9, field_entry field_name 1, field_entry field_parameters 3, field_entry field_return_type 5, field_entry field_type_parameters 2]),
    (1055, [field_entry field_body 9, field_entry field_name 1, field_entry field_parameters 3, field_entry field_return_type 7, field_entry field_type_parameters 2]),
    (1060, [field_entry field_body 9, field_entry field_name 1, field_entry field_parameters 3, inherited_entry field_raises_type 4, field_entry field_return_type 7, field_entry field_type_parameters 2]),
    (1066, [field_entry field_body 8, field_entry field_body 9, field_entry field_name 1, field_entry field_parameters 3, inherited_entry field_raises_type 4, field_entry field_return_type 6, field_entry field_type_parameters 2]),
    (1073, [field_entry field_body 9, field_entry field_name 1, field_entry field_parameters 3, inherited_entry field_raises_type 4, field_entry field_return_type 6, field_entry field_type_parameters 2]),
    (1079, [field_entry field_body 8, field_entry field_body 9, field_entry field_name 1, field_entry field_parameters 3, inherited_entry field_raises_type 4, field_entry field_type_parameters 2]),
    (1085, [field_entry field_body 8, field_entry field_body 9, field_entry field_name 1, field_entry field_parameters 3, field_entry field_type_parameters 2]),
    (1090, [field_entry field_body 9, field_entry field_name 1, field_entry field_parameters 3, inherited_entry field_raises_type 5, field_entry field_return_type 7, field_entry field_type_parameters 2]),
    (1096, [field_entry field_body 8, field_entry field_body 9, field_entry field_name 1, field_entry field_parameters 3, inherited_entry field_raises_type 5, field_entry field_type_parameters 2]),
    (1102, [field_entry field_body 9, field_entry field_name 1, field_entry field_parameters 3, inherited_entry field_raises_type 5, field_entry field_type_parameters 2]),
    (1107, [field_entry field_parameter 3, field_entry field_return_type 8]),
    (1109, [field_entry field_parameter 3, inherited_entry field_raises_type 5, field_entry field_return_type 8]),
    (1112, [field_entry field_parameter 3, inherited_entry field_raises_type 6, field_entry field_return_type 8]),
    (1115, [field_entry field_parameter 3, inherited_entry field_parameter 4, field_entry field_return_type 8]),
    (1118, [field_entry field_parameter 3, inherited_entry field_parameter 4, inherited_entry field_raises_type 6, field_entry field_return_type 8]),
    (1122, [field_entry field_parameter 2, inherited_entry field_raises_type 4, field_entry field_return_type 8]),
    (1125, [field_entry field_parameter 2, field_entry field_return_type 8]),
    (1127, [field_entry field_parameter 2, inherited_entry field_raises_type 5, field_entry field_return_type 8]),
    (1130, [field_entry field_parameter 2, inherited_entry field_parameter 3, field_entry field_return_type 8]),
    (1133, [field_entry field_parameter 2, inherited_entry field_parameter 3, inherited_entry field_raises_type 5, field_entry field_return_type 8]),
    (1137, [field_entry field_parameter 2, inherited_entry field_parameter 3, inherited_entry field_raises_type 6, field_entry field_return_type 8]),
    (1141, [inherited_entry field_raises_type 4, field_entry field_return_type 8, field_entry field_type_parameters 1])]"

definition field_map_entries_10 :: "(nat \<times> TSFieldMapEntry list) list" where "field_map_entries_10 = [

    (1144, [field_entry field_parameter 4, field_entry field_return_type 8, field_entry field_type_parameters 1]),
    (1147, [field_entry field_parameter 4, inherited_entry field_raises_type 6, field_entry field_return_type 8, field_entry field_type_parameters 1]),
    (1151, [field_entry field_parameter 4, inherited_entry field_parameter 5, field_entry field_return_type 8, field_entry field_type_parameters 1]),
    (1155, [field_entry field_parameter 4, inherited_entry field_parameter 5, inherited_entry field_raises_type 8, field_entry field_type_parameters 1]),
    (1159, [field_entry field_parameter 3, field_entry field_return_type 8, field_entry field_type_parameters 1]),
    (1162, [field_entry field_parameter 3, inherited_entry field_raises_type 5, field_entry field_return_type 8, field_entry field_type_parameters 1]),
    (1166, [field_entry field_parameter 3, inherited_entry field_raises_type 6, field_entry field_return_type 8, field_entry field_type_parameters 1]),
    (1170, [field_entry field_parameter 3, inherited_entry field_parameter 4, field_entry field_return_type 8, field_entry field_type_parameters 1]),
    (1174, [field_entry field_parameter 3, inherited_entry field_parameter 4, inherited_entry field_raises_type 6, field_entry field_return_type 8, field_entry field_type_parameters 1]),
    (1179, [field_entry field_consequence 5, field_entry field_consequence 6, field_entry field_guard 3]),
    (1182, [field_entry field_consequence 5, field_entry field_consequence 6]),
    (1184, [field_entry field_consequence 6, field_entry field_guard 4]),
    (1186, [field_entry field_body 9, field_entry field_body 10, field_entry field_name 3, field_entry field_name 6, field_entry field_parameters 4, field_entry field_parameters 7]),
    (1192, [field_entry field_body 10, field_entry field_name 3, field_entry field_name 6, field_entry field_parameters 4, field_entry field_parameters 7]),
    (1197, [field_entry field_body 10, field_entry field_name 3, field_entry field_name 6, field_entry field_parameters 4, field_entry field_parameters 7, inherited_entry field_raises_type 8]),
    (1203, [field_entry field_body 10, field_entry field_name 3, field_entry field_name 6, field_entry field_parameters 4, field_entry field_parameters 8, field_entry field_type_parameters 7]),
    (1209, [field_entry field_body 10, field_entry field_name 3, field_entry field_name 7, field_entry field_parameters 5, field_entry field_parameters 8, field_entry field_type_parameters 4]),
    (1215, [field_entry field_body 9, field_entry field_body 10, field_entry field_name 2, field_entry field_parameters 3, field_entry field_return_type 6]),
    (1220, [field_entry field_body 9, field_entry field_body 10, field_entry field_name 2, field_entry field_parameters 3, field_entry field_return_type 7]),
    (1225, [field_entry field_body 10, field_entry field_name 2, field_entry field_parameters 3, field_entry field_return_type 7]),
    (1229, [field_entry field_body 9, field_entry field_body 10, field_entry field_name 2, field_entry field_parameters 3, inherited_entry field_raises_type 4, field_entry field_return_type 7]),
    (1235, [field_entry field_body 10, field_entry field_name 2, field_entry field_parameters 3, inherited_entry field_raises_type 4, field_entry field_return_type 7]),
    (1240, [field_entry field_body 9, field_entry field_body 10, field_entry field_name 2, field_entry field_parameters 3, inherited_entry field_raises_type 4, field_entry field_return_type 6]),
    (1246, [field_entry field_body 10, field_entry field_name 2, field_entry field_parameters 3, inherited_entry field_raises_type 4, field_entry field_return_type 8]),
    (1251, [field_entry field_body 10, field_entry field_name 2, field_entry field_parameters 3, field_entry field_return_type 8]),
    (1255, [field_entry field_body 10, field_entry field_name 2, field_entry field_parameters 3, inherited_entry field_raises_type 5, field_entry field_return_type 8]),
    (1260, [field_entry field_body 9, field_entry field_body 10, field_entry field_name 2, field_entry field_parameters 3, inherited_entry field_raises_type 5, field_entry field_return_type 7])]"

definition field_map_entries_11 :: "(nat \<times> TSFieldMapEntry list) list" where "field_map_entries_11 = [

    (1266, [field_entry field_body 10, field_entry field_name 2, field_entry field_parameters 3, inherited_entry field_raises_type 5, field_entry field_return_type 7]),
    (1271, [field_entry field_body 9, field_entry field_body 10, field_entry field_name 2, field_entry field_parameters 3, inherited_entry field_raises_type 5]),
    (1276, [field_entry field_body 9, field_entry field_body 10, field_entry field_name 2, field_entry field_parameters 4, field_entry field_return_type 7, field_entry field_type_parameters 3]),
    (1282, [field_entry field_body 10, field_entry field_name 2, field_entry field_parameters 4, field_entry field_return_type 7, field_entry field_type_parameters 3]),
    (1287, [field_entry field_body 9, field_entry field_body 10, field_entry field_name 2, field_entry field_parameters 4, field_entry field_return_type 6, field_entry field_type_parameters 3]),
    (1293, [field_entry field_body 10, field_entry field_name 2, field_entry field_parameters 4, field_entry field_return_type 8, field_entry field_type_parameters 3]),
    (1298, [field_entry field_body 10, field_entry field_name 2, field_entry field_parameters 4, inherited_entry field_raises_type 5, field_entry field_return_type 8, field_entry field_type_parameters 3]),
    (1304, [field_entry field_body 9, field_entry field_body 10, field_entry field_name 2, field_entry field_parameters 4, inherited_entry field_raises_type 5, field_entry field_return_type 7, field_entry field_type_parameters 3]),
    (1311, [field_entry field_body 10, field_entry field_name 2, field_entry field_parameters 4, inherited_entry field_raises_type 5, field_entry field_return_type 7, field_entry field_type_parameters 3]),
    (1317, [field_entry field_body 9, field_entry field_body 10, field_entry field_name 2, field_entry field_parameters 4, inherited_entry field_raises_type 5, field_entry field_type_parameters 3]),
    (1323, [field_entry field_body 9, field_entry field_body 10, field_entry field_name 2, field_entry field_parameters 4, field_entry field_type_parameters 3]),
    (1328, [field_entry field_body 10, field_entry field_name 2, field_entry field_parameters 4, inherited_entry field_raises_type 6, field_entry field_return_type 8, field_entry field_type_parameters 3]),
    (1334, [field_entry field_body 9, field_entry field_body 10, field_entry field_name 2, field_entry field_parameters 4, inherited_entry field_raises_type 6, field_entry field_type_parameters 3]),
    (1340, [field_entry field_body 10, field_entry field_name 2, field_entry field_parameters 4, inherited_entry field_raises_type 6, field_entry field_type_parameters 3]),
    (1345, [field_entry field_body 10, field_entry field_name 2, field_entry field_name 5, field_entry field_parameters 3, field_entry field_parameters 6, field_entry field_return_type 8]),
    (1351, [field_entry field_body 9, field_entry field_body 10, field_entry field_name 2, field_entry field_name 5, field_entry field_parameters 3, field_entry field_parameters 6]),
    (1357, [field_entry field_body 10, field_entry field_name 2, field_entry field_name 5, field_entry field_parameters 3, field_entry field_parameters 6]),
    (1362, [field_entry field_body 9, field_entry field_body 10, field_entry field_name 2, field_entry field_name 5, field_entry field_parameters 3, field_entry field_parameters 6, inherited_entry field_raises_type 7]),
    (1369, [field_entry field_body 10, field_entry field_name 2, field_entry field_name 5, field_entry field_parameters 3, field_entry field_parameters 6, inherited_entry field_raises_type 7]),
    (1375, [field_entry field_body 10, field_entry field_name 2, field_entry field_name 5, field_entry field_parameters 3, field_entry field_parameters 6, inherited_entry field_raises_type 8]),
    (1381, [field_entry field_body 9, field_entry field_body 10, field_entry field_name 2, field_entry field_name 5, field_entry field_parameters 3, field_entry field_parameters 7, field_entry field_type_parameters 6]),
    (1388, [field_entry field_body 10, field_entry field_name 2, field_entry field_name 5, field_entry field_parameters 3, field_entry field_parameters 7, field_entry field_type_parameters 6])]"

definition field_map_entries_12 :: "(nat \<times> TSFieldMapEntry list) list" where "field_map_entries_12 = [

    (1394, [field_entry field_body 10, field_entry field_name 2, field_entry field_name 5, field_entry field_parameters 3, field_entry field_parameters 7, inherited_entry field_raises_type 8, field_entry field_type_parameters 6]),
    (1401, [field_entry field_body 9, field_entry field_body 10, field_entry field_name 2, field_entry field_name 6, field_entry field_parameters 4, field_entry field_parameters 7, field_entry field_type_parameters 3]),
    (1408, [field_entry field_body 10, field_entry field_name 2, field_entry field_name 6, field_entry field_parameters 4, field_entry field_parameters 7, field_entry field_type_parameters 3]),
    (1414, [field_entry field_body 10, field_entry field_name 2, field_entry field_name 6, field_entry field_parameters 4, field_entry field_parameters 7, inherited_entry field_raises_type 8, field_entry field_type_parameters 3]),
    (1421, [field_entry field_body 10, field_entry field_name 2, field_entry field_name 6, field_entry field_parameters 4, field_entry field_parameters 8, field_entry field_type_parameters 3, field_entry field_type_parameters 7]),
    (1428, [field_entry field_body 9, field_entry field_body 10, field_entry field_name 1, field_entry field_parameters 2, field_entry field_return_type 6]),
    (1433, [field_entry field_body 9, field_entry field_body 10, field_entry field_name 1, field_entry field_parameters 2, inherited_entry field_raises_type 3, field_entry field_return_type 6]),
    (1439, [field_entry field_body 9, field_entry field_body 10, field_entry field_name 1, field_entry field_parameters 2, inherited_entry field_raises_type 3, field_entry field_return_type 7]),
    (1445, [field_entry field_body 10, field_entry field_name 1, field_entry field_parameters 2, inherited_entry field_raises_type 3, field_entry field_return_type 7]),
    (1450, [field_entry field_body 9, field_entry field_body 10, field_entry field_name 1, field_entry field_parameters 2, field_entry field_return_type 7]),
    (1455, [field_entry field_body 10, field_entry field_name 1, field_entry field_parameters 2, field_entry field_return_type 7]),
    (1459, [field_entry field_body 9, field_entry field_body 10, field_entry field_name 1, field_entry field_parameters 2, inherited_entry field_raises_type 4, field_entry field_return_type 7]),
    (1465, [field_entry field_body 10, field_entry field_name 1, field_entry field_parameters 2, inherited_entry field_raises_type 4, field_entry field_return_type 7]),
    (1470, [field_entry field_body 9, field_entry field_body 10, field_entry field_name 1, field_entry field_parameters 2, inherited_entry field_raises_type 4, field_entry field_return_type 6]),
    (1476, [field_entry field_body 10, field_entry field_name 1, field_entry field_parameters 2, inherited_entry field_raises_type 4, field_entry field_return_type 8]),
    (1481, [field_entry field_body 9, field_entry field_body 10, field_entry field_name 1, field_entry field_parameters 3, field_entry field_return_type 6, field_entry field_type_parameters 2]),
    (1487, [field_entry field_body 9, field_entry field_body 10, field_entry field_name 1, field_entry field_parameters 3, field_entry field_return_type 7, field_entry field_type_parameters 2]),
    (1493, [field_entry field_body 10, field_entry field_name 1, field_entry field_parameters 3, field_entry field_return_type 7, field_entry field_type_parameters 2]),
    (1498, [field_entry field_body 9, field_entry field_body 10, field_entry field_name 1, field_entry field_parameters 3, inherited_entry field_raises_type 4, field_entry field_return_type 7, field_entry field_type_parameters 2]),
    (1505, [field_entry field_body 10, field_entry field_name 1, field_entry field_parameters 3, inherited_entry field_raises_type 4, field_entry field_return_type 7, field_entry field_type_parameters 2]),
    (1511, [field_entry field_body 9, field_entry field_body 10, field_entry field_name 1, field_entry field_parameters 3, inherited_entry field_raises_type 4, field_entry field_return_type 6, field_entry field_type_parameters 2])]"

definition field_map_entries_13 :: "(nat \<times> TSFieldMapEntry list) list" where "field_map_entries_13 = [

    (1518, [field_entry field_body 10, field_entry field_name 1, field_entry field_parameters 3, inherited_entry field_raises_type 4, field_entry field_return_type 8, field_entry field_type_parameters 2]),
    (1524, [field_entry field_body 10, field_entry field_name 1, field_entry field_parameters 3, field_entry field_return_type 8, field_entry field_type_parameters 2]),
    (1529, [field_entry field_body 10, field_entry field_name 1, field_entry field_parameters 3, inherited_entry field_raises_type 5, field_entry field_return_type 8, field_entry field_type_parameters 2]),
    (1535, [field_entry field_body 9, field_entry field_body 10, field_entry field_name 1, field_entry field_parameters 3, inherited_entry field_raises_type 5, field_entry field_return_type 7, field_entry field_type_parameters 2]),
    (1542, [field_entry field_body 10, field_entry field_name 1, field_entry field_parameters 3, inherited_entry field_raises_type 5, field_entry field_return_type 7, field_entry field_type_parameters 2]),
    (1548, [field_entry field_body 9, field_entry field_body 10, field_entry field_name 1, field_entry field_parameters 3, inherited_entry field_raises_type 5, field_entry field_type_parameters 2]),
    (1554, [field_entry field_parameter 3, inherited_entry field_raises_type 5, field_entry field_return_type 9]),
    (1557, [field_entry field_parameter 3, field_entry field_return_type 9]),
    (1559, [field_entry field_parameter 3, inherited_entry field_raises_type 6, field_entry field_return_type 9]),
    (1562, [field_entry field_parameter 3, inherited_entry field_parameter 4, field_entry field_return_type 9]),
    (1565, [field_entry field_parameter 3, inherited_entry field_parameter 4, inherited_entry field_raises_type 6, field_entry field_return_type 9]),
    (1569, [field_entry field_parameter 3, inherited_entry field_parameter 4, inherited_entry field_raises_type 7, field_entry field_return_type 9]),
    (1573, [field_entry field_parameter 2, inherited_entry field_raises_type 5, field_entry field_return_type 9]),
    (1576, [field_entry field_parameter 2, inherited_entry field_parameter 3, inherited_entry field_raises_type 5, field_entry field_return_type 9]),
    (1580, [field_entry field_parameter 2, inherited_entry field_parameter 3, field_entry field_return_type 9]),
    (1583, [field_entry field_parameter 2, inherited_entry field_parameter 3, inherited_entry field_raises_type 6, field_entry field_return_type 9]),
    (1587, [field_entry field_parameter 4, field_entry field_return_type 9, field_entry field_type_parameters 1]),
    (1590, [field_entry field_parameter 4, inherited_entry field_raises_type 6, field_entry field_return_type 9, field_entry field_type_parameters 1]),
    (1594, [field_entry field_parameter 4, inherited_entry field_raises_type 7, field_entry field_return_type 9, field_entry field_type_parameters 1]),
    (1598, [field_entry field_parameter 4, inherited_entry field_parameter 5, field_entry field_return_type 9, field_entry field_type_parameters 1]),
    (1602, [field_entry field_parameter 4, inherited_entry field_parameter 5, inherited_entry field_raises_type 7, field_entry field_return_type 9, field_entry field_type_parameters 1]),
    (1607, [field_entry field_parameter 3, inherited_entry field_raises_type 5, field_entry field_return_type 9, field_entry field_type_parameters 1]),
    (1611, [field_entry field_parameter 3, field_entry field_return_type 9, field_entry field_type_parameters 1]),
    (1614, [field_entry field_parameter 3, inherited_entry field_raises_type 6, field_entry field_return_type 9, field_entry field_type_parameters 1]),
    (1618, [field_entry field_parameter 3, inherited_entry field_parameter 4, field_entry field_return_type 9, field_entry field_type_parameters 1]),
    (1622, [field_entry field_parameter 3, inherited_entry field_parameter 4, inherited_entry field_raises_type 6, field_entry field_return_type 9, field_entry field_type_parameters 1]),
    (1627, [field_entry field_parameter 3, inherited_entry field_parameter 4, inherited_entry field_raises_type 7, field_entry field_return_type 9, field_entry field_type_parameters 1]),
    (1632, [field_entry field_consequence 6, field_entry field_consequence 7, field_entry field_guard 4])]"

definition field_map_entries_14 :: "(nat \<times> TSFieldMapEntry list) list" where "field_map_entries_14 = [

    (1635, [field_entry field_body 11, field_entry field_name 3, field_entry field_name 6, field_entry field_parameters 4, field_entry field_parameters 7, field_entry field_return_type 9]),
    (1641, [field_entry field_body 10, field_entry field_body 11, field_entry field_name 3, field_entry field_name 6, field_entry field_parameters 4, field_entry field_parameters 7]),
    (1647, [field_entry field_body 11, field_entry field_name 3, field_entry field_name 6, field_entry field_parameters 4, field_entry field_parameters 7]),
    (1652, [field_entry field_body 10, field_entry field_body 11, field_entry field_name 3, field_entry field_name 6, field_entry field_parameters 4, field_entry field_parameters 7, inherited_entry field_raises_type 8]),
    (1659, [field_entry field_body 11, field_entry field_name 3, field_entry field_name 6, field_entry field_parameters 4, field_entry field_parameters 7, inherited_entry field_raises_type 8]),
    (1665, [field_entry field_body 11, field_entry field_name 3, field_entry field_name 6, field_entry field_parameters 4, field_entry field_parameters 7, inherited_entry field_raises_type 9]),
    (1671, [field_entry field_body 10, field_entry field_body 11, field_entry field_name 3, field_entry field_name 6, field_entry field_parameters 4, field_entry field_parameters 8, field_entry field_type_parameters 7]),
    (1678, [field_entry field_body 11, field_entry field_name 3, field_entry field_name 6, field_entry field_parameters 4, field_entry field_parameters 8, field_entry field_type_parameters 7]),
    (1684, [field_entry field_body 11, field_entry field_name 3, field_entry field_name 6, field_entry field_parameters 4, field_entry field_parameters 8, inherited_entry field_raises_type 9, field_entry field_type_parameters 7]),
    (1691, [field_entry field_body 10, field_entry field_body 11, field_entry field_name 3, field_entry field_name 7, field_entry field_parameters 5, field_entry field_parameters 8, field_entry field_type_parameters 4]),
    (1698, [field_entry field_body 11, field_entry field_name 3, field_entry field_name 7, field_entry field_parameters 5, field_entry field_parameters 8, field_entry field_type_parameters 4]),
    (1704, [field_entry field_body 11, field_entry field_name 3, field_entry field_name 7, field_entry field_parameters 5, field_entry field_parameters 8, inherited_entry field_raises_type 9, field_entry field_type_parameters 4]),
    (1711, [field_entry field_body 11, field_entry field_name 3, field_entry field_name 7, field_entry field_parameters 5, field_entry field_parameters 9, field_entry field_type_parameters 4, field_entry field_type_parameters 8]),
    (1718, [field_entry field_body 10, field_entry field_body 11, field_entry field_name 2, field_entry field_parameters 3, field_entry field_return_type 7]),
    (1723, [field_entry field_body 10, field_entry field_body 11, field_entry field_name 2, field_entry field_parameters 3, inherited_entry field_raises_type 4, field_entry field_return_type 7]),
    (1729, [field_entry field_body 10, field_entry field_body 11, field_entry field_name 2, field_entry field_parameters 3, inherited_entry field_raises_type 4, field_entry field_return_type 8]),
    (1735, [field_entry field_body 11, field_entry field_name 2, field_entry field_parameters 3, inherited_entry field_raises_type 4, field_entry field_return_type 8]),
    (1740, [field_entry field_body 10, field_entry field_body 11, field_entry field_name 2, field_entry field_parameters 3, field_entry field_return_type 8]),
    (1745, [field_entry field_body 11, field_entry field_name 2, field_entry field_parameters 3, field_entry field_return_type 8]),
    (1749, [field_entry field_body 10, field_entry field_body 11, field_entry field_name 2, field_entry field_parameters 3, inherited_entry field_raises_type 5, field_entry field_return_type 8]),
    (1755, [field_entry field_body 11, field_entry field_name 2, field_entry field_parameters 3, inherited_entry field_raises_type 5, field_entry field_return_type 8])]"

definition field_map_entries_15 :: "(nat \<times> TSFieldMapEntry list) list" where "field_map_entries_15 = [

    (1760, [field_entry field_body 10, field_entry field_body 11, field_entry field_name 2, field_entry field_parameters 3, inherited_entry field_raises_type 5, field_entry field_return_type 7]),
    (1766, [field_entry field_body 11, field_entry field_name 2, field_entry field_parameters 3, inherited_entry field_raises_type 5, field_entry field_return_type 9]),
    (1771, [field_entry field_body 10, field_entry field_body 11, field_entry field_name 2, field_entry field_parameters 4, field_entry field_return_type 7, field_entry field_type_parameters 3]),
    (1777, [field_entry field_body 10, field_entry field_body 11, field_entry field_name 2, field_entry field_parameters 4, field_entry field_return_type 8, field_entry field_type_parameters 3]),
    (1783, [field_entry field_body 11, field_entry field_name 2, field_entry field_parameters 4, field_entry field_return_type 8, field_entry field_type_parameters 3]),
    (1788, [field_entry field_body 10, field_entry field_body 11, field_entry field_name 2, field_entry field_parameters 4, inherited_entry field_raises_type 5, field_entry field_return_type 8, field_entry field_type_parameters 3]),
    (1795, [field_entry field_body 11, field_entry field_name 2, field_entry field_parameters 4, inherited_entry field_raises_type 5, field_entry field_return_type 8, field_entry field_type_parameters 3]),
    (1801, [field_entry field_body 10, field_entry field_body 11, field_entry field_name 2, field_entry field_parameters 4, inherited_entry field_raises_type 5, field_entry field_return_type 7, field_entry field_type_parameters 3]),
    (1808, [field_entry field_body 11, field_entry field_name 2, field_entry field_parameters 4, inherited_entry field_raises_type 5, field_entry field_return_type 9, field_entry field_type_parameters 3]),
    (1814, [field_entry field_body 11, field_entry field_name 2, field_entry field_parameters 4, field_entry field_return_type 9, field_entry field_type_parameters 3]),
    (1819, [field_entry field_body 11, field_entry field_name 2, field_entry field_parameters 4, inherited_entry field_raises_type 6, field_entry field_return_type 9, field_entry field_type_parameters 3]),
    (1825, [field_entry field_body 10, field_entry field_body 11, field_entry field_name 2, field_entry field_parameters 4, inherited_entry field_raises_type 6, field_entry field_return_type 8, field_entry field_type_parameters 3]),
    (1832, [field_entry field_body 11, field_entry field_name 2, field_entry field_parameters 4, inherited_entry field_raises_type 6, field_entry field_return_type 8, field_entry field_type_parameters 3]),
    (1838, [field_entry field_body 10, field_entry field_body 11, field_entry field_name 2, field_entry field_parameters 4, inherited_entry field_raises_type 6, field_entry field_type_parameters 3]),
    (1844, [field_entry field_body 11, field_entry field_name 2, field_entry field_name 5, field_entry field_parameters 3, field_entry field_parameters 6, field_entry field_return_type 9]),
    (1850, [field_entry field_body 10, field_entry field_body 11, field_entry field_name 2, field_entry field_name 5, field_entry field_parameters 3, field_entry field_parameters 6, field_entry field_return_type 8]),
    (1857, [field_entry field_body 11, field_entry field_name 2, field_entry field_name 5, field_entry field_parameters 3, field_entry field_parameters 6, field_entry field_return_type 8]),
    (1863, [field_entry field_body 10, field_entry field_body 11, field_entry field_name 2, field_entry field_name 5, field_entry field_parameters 3, field_entry field_parameters 6]),
    (1869, [field_entry field_body 11, field_entry field_name 2, field_entry field_name 5, field_entry field_parameters 3, field_entry field_parameters 6, inherited_entry field_raises_type 7, field_entry field_return_type 9]),
    (1876, [field_entry field_body 10, field_entry field_body 11, field_entry field_name 2, field_entry field_name 5, field_entry field_parameters 3, field_entry field_parameters 6, inherited_entry field_raises_type 7]),
    (1883, [field_entry field_body 11, field_entry field_name 2, field_entry field_name 5, field_entry field_parameters 3, field_entry field_parameters 6, inherited_entry field_raises_type 7])]"

definition field_map_entries_16 :: "(nat \<times> TSFieldMapEntry list) list" where "field_map_entries_16 = [

    (1889, [field_entry field_body 11, field_entry field_name 2, field_entry field_name 5, field_entry field_parameters 3, field_entry field_parameters 6]),
    (1894, [field_entry field_body 10, field_entry field_body 11, field_entry field_name 2, field_entry field_name 5, field_entry field_parameters 3, field_entry field_parameters 6, inherited_entry field_raises_type 8]),
    (1901, [field_entry field_body 11, field_entry field_name 2, field_entry field_name 5, field_entry field_parameters 3, field_entry field_parameters 6, inherited_entry field_raises_type 8]),
    (1907, [field_entry field_body 11, field_entry field_name 2, field_entry field_name 5, field_entry field_parameters 3, field_entry field_parameters 7, field_entry field_return_type 9, field_entry field_type_parameters 6]),
    (1914, [field_entry field_body 10, field_entry field_body 11, field_entry field_name 2, field_entry field_name 5, field_entry field_parameters 3, field_entry field_parameters 7, field_entry field_type_parameters 6]),
    (1921, [field_entry field_body 11, field_entry field_name 2, field_entry field_name 5, field_entry field_parameters 3, field_entry field_parameters 7, field_entry field_type_parameters 6]),
    (1927, [field_entry field_body 10, field_entry field_body 11, field_entry field_name 2, field_entry field_name 5, field_entry field_parameters 3, field_entry field_parameters 7, inherited_entry field_raises_type 8, field_entry field_type_parameters 6]),
    (1935, [field_entry field_body 11, field_entry field_name 2, field_entry field_name 5, field_entry field_parameters 3, field_entry field_parameters 7, inherited_entry field_raises_type 8, field_entry field_type_parameters 6]),
    (1942, [field_entry field_body 11, field_entry field_name 2, field_entry field_name 5, field_entry field_parameters 3, field_entry field_parameters 7, inherited_entry field_raises_type 9, field_entry field_type_parameters 6]),
    (1949, [field_entry field_body 11, field_entry field_name 2, field_entry field_name 6, field_entry field_parameters 4, field_entry field_parameters 7, field_entry field_return_type 9, field_entry field_type_parameters 3]),
    (1956, [field_entry field_body 10, field_entry field_body 11, field_entry field_name 2, field_entry field_name 6, field_entry field_parameters 4, field_entry field_parameters 7, field_entry field_type_parameters 3]),
    (1963, [field_entry field_body 11, field_entry field_name 2, field_entry field_name 6, field_entry field_parameters 4, field_entry field_parameters 7, field_entry field_type_parameters 3]),
    (1969, [field_entry field_body 10, field_entry field_body 11, field_entry field_name 2, field_entry field_name 6, field_entry field_parameters 4, field_entry field_parameters 7, inherited_entry field_raises_type 8, field_entry field_type_parameters 3]),
    (1977, [field_entry field_body 11, field_entry field_name 2, field_entry field_name 6, field_entry field_parameters 4, field_entry field_parameters 7, inherited_entry field_raises_type 8, field_entry field_type_parameters 3]),
    (1984, [field_entry field_body 11, field_entry field_name 2, field_entry field_name 6, field_entry field_parameters 4, field_entry field_parameters 7, inherited_entry field_raises_type 9, field_entry field_type_parameters 3]),
    (1991, [field_entry field_body 10, field_entry field_body 11, field_entry field_name 2, field_entry field_name 6, field_entry field_parameters 4, field_entry field_parameters 8, field_entry field_type_parameters 3, field_entry field_type_parameters 7]),
    (1999, [field_entry field_body 11, field_entry field_name 2, field_entry field_name 6, field_entry field_parameters 4, field_entry field_parameters 8, field_entry field_type_parameters 3, field_entry field_type_parameters 7]),
    (2006, [field_entry field_body 11, field_entry field_name 2, field_entry field_name 6, field_entry field_parameters 4, field_entry field_parameters 8, inherited_entry field_raises_type 9, field_entry field_type_parameters 3, field_entry field_type_parameters 7]),
    (2014, [field_entry field_body 10, field_entry field_body 11, field_entry field_name 1, field_entry field_parameters 2, inherited_entry field_raises_type 3, field_entry field_return_type 7])]"

definition field_map_entries_17 :: "(nat \<times> TSFieldMapEntry list) list" where "field_map_entries_17 = [

    (2020, [field_entry field_body 10, field_entry field_body 11, field_entry field_name 1, field_entry field_parameters 2, field_entry field_return_type 7]),
    (2025, [field_entry field_body 10, field_entry field_body 11, field_entry field_name 1, field_entry field_parameters 2, inherited_entry field_raises_type 4, field_entry field_return_type 7]),
    (2031, [field_entry field_body 10, field_entry field_body 11, field_entry field_name 1, field_entry field_parameters 2, inherited_entry field_raises_type 4, field_entry field_return_type 8]),
    (2037, [field_entry field_body 11, field_entry field_name 1, field_entry field_parameters 2, inherited_entry field_raises_type 4, field_entry field_return_type 8]),
    (2042, [field_entry field_body 10, field_entry field_body 11, field_entry field_name 1, field_entry field_parameters 3, field_entry field_return_type 7, field_entry field_type_parameters 2]),
    (2048, [field_entry field_body 10, field_entry field_body 11, field_entry field_name 1, field_entry field_parameters 3, inherited_entry field_raises_type 4, field_entry field_return_type 7, field_entry field_type_parameters 2]),
    (2055, [field_entry field_body 10, field_entry field_body 11, field_entry field_name 1, field_entry field_parameters 3, inherited_entry field_raises_type 4, field_entry field_return_type 8, field_entry field_type_parameters 2]),
    (2062, [field_entry field_body 11, field_entry field_name 1, field_entry field_parameters 3, inherited_entry field_raises_type 4, field_entry field_return_type 8, field_entry field_type_parameters 2]),
    (2068, [field_entry field_body 10, field_entry field_body 11, field_entry field_name 1, field_entry field_parameters 3, field_entry field_return_type 8, field_entry field_type_parameters 2]),
    (2074, [field_entry field_body 11, field_entry field_name 1, field_entry field_parameters 3, field_entry field_return_type 8, field_entry field_type_parameters 2]),
    (2079, [field_entry field_body 10, field_entry field_body 11, field_entry field_name 1, field_entry field_parameters 3, inherited_entry field_raises_type 5, field_entry field_return_type 8, field_entry field_type_parameters 2]),
    (2086, [field_entry field_body 11, field_entry field_name 1, field_entry field_parameters 3, inherited_entry field_raises_type 5, field_entry field_return_type 8, field_entry field_type_parameters 2]),
    (2092, [field_entry field_body 10, field_entry field_body 11, field_entry field_name 1, field_entry field_parameters 3, inherited_entry field_raises_type 5, field_entry field_return_type 7, field_entry field_type_parameters 2]),
    (2099, [field_entry field_body 11, field_entry field_name 1, field_entry field_parameters 3, inherited_entry field_raises_type 5, field_entry field_return_type 9, field_entry field_type_parameters 2]),
    (2105, [field_entry field_parameter 3, inherited_entry field_raises_type 6, field_entry field_return_type 10]),
    (2108, [field_entry field_parameter 3, inherited_entry field_parameter 4, inherited_entry field_raises_type 6, field_entry field_return_type 10]),
    (2112, [field_entry field_parameter 3, inherited_entry field_parameter 4, field_entry field_return_type 10]),
    (2115, [field_entry field_parameter 3, inherited_entry field_parameter 4, inherited_entry field_raises_type 7, field_entry field_return_type 10]),
    (2119, [field_entry field_parameter 2, inherited_entry field_parameter 3, inherited_entry field_raises_type 6, field_entry field_return_type 10]),
    (2123, [field_entry field_parameter 4, inherited_entry field_raises_type 6, field_entry field_return_type 10, field_entry field_type_parameters 1]),
    (2127, [field_entry field_parameter 4, field_entry field_return_type 10, field_entry field_type_parameters 1]),
    (2130, [field_entry field_parameter 4, inherited_entry field_raises_type 7, field_entry field_return_type 10, field_entry field_type_parameters 1]),
    (2134, [field_entry field_parameter 4, inherited_entry field_parameter 5, field_entry field_return_type 10, field_entry field_type_parameters 1]),
    (2138, [field_entry field_parameter 4, inherited_entry field_parameter 5, inherited_entry field_raises_type 7, field_entry field_return_type 10, field_entry field_type_parameters 1])]"

definition field_map_entries_18 :: "(nat \<times> TSFieldMapEntry list) list" where "field_map_entries_18 = [

    (2143, [field_entry field_parameter 4, inherited_entry field_parameter 5, inherited_entry field_raises_type 8, field_entry field_return_type 10, field_entry field_type_parameters 1]),
    (2148, [field_entry field_parameter 3, inherited_entry field_raises_type 6, field_entry field_return_type 10, field_entry field_type_parameters 1]),
    (2152, [field_entry field_parameter 3, inherited_entry field_parameter 4, inherited_entry field_raises_type 6, field_entry field_return_type 10, field_entry field_type_parameters 1]),
    (2157, [field_entry field_parameter 3, inherited_entry field_parameter 4, field_entry field_return_type 10, field_entry field_type_parameters 1]),
    (2161, [field_entry field_parameter 3, inherited_entry field_parameter 4, inherited_entry field_raises_type 7, field_entry field_return_type 10, field_entry field_type_parameters 1]),
    (2166, [field_entry field_body 12, field_entry field_name 3, field_entry field_name 6, field_entry field_parameters 4, field_entry field_parameters 7, field_entry field_return_type 10]),
    (2172, [field_entry field_body 11, field_entry field_body 12, field_entry field_name 3, field_entry field_name 6, field_entry field_parameters 4, field_entry field_parameters 7, field_entry field_return_type 9]),
    (2179, [field_entry field_body 12, field_entry field_name 3, field_entry field_name 6, field_entry field_parameters 4, field_entry field_parameters 7, field_entry field_return_type 9]),
    (2185, [field_entry field_body 11, field_entry field_body 12, field_entry field_name 3, field_entry field_name 6, field_entry field_parameters 4, field_entry field_parameters 7]),
    (2191, [field_entry field_body 12, field_entry field_name 3, field_entry field_name 6, field_entry field_parameters 4, field_entry field_parameters 7, inherited_entry field_raises_type 8, field_entry field_return_type 10]),
    (2198, [field_entry field_body 11, field_entry field_body 12, field_entry field_name 3, field_entry field_name 6, field_entry field_parameters 4, field_entry field_parameters 7, inherited_entry field_raises_type 8]),
    (2205, [field_entry field_body 12, field_entry field_name 3, field_entry field_name 6, field_entry field_parameters 4, field_entry field_parameters 7, inherited_entry field_raises_type 8]),
    (2211, [field_entry field_body 12, field_entry field_name 3, field_entry field_name 6, field_entry field_parameters 4, field_entry field_parameters 7]),
    (2216, [field_entry field_body 11, field_entry field_body 12, field_entry field_name 3, field_entry field_name 6, field_entry field_parameters 4, field_entry field_parameters 7, inherited_entry field_raises_type 9]),
    (2223, [field_entry field_body 12, field_entry field_name 3, field_entry field_name 6, field_entry field_parameters 4, field_entry field_parameters 7, inherited_entry field_raises_type 9]),
    (2229, [field_entry field_body 12, field_entry field_name 3, field_entry field_name 6, field_entry field_parameters 4, field_entry field_parameters 8, field_entry field_return_type 10, field_entry field_type_parameters 7]),
    (2236, [field_entry field_body 11, field_entry field_body 12, field_entry field_name 3, field_entry field_name 6, field_entry field_parameters 4, field_entry field_parameters 8, field_entry field_type_parameters 7]),
    (2243, [field_entry field_body 12, field_entry field_name 3, field_entry field_name 6, field_entry field_parameters 4, field_entry field_parameters 8, field_entry field_type_parameters 7]),
    (2249, [field_entry field_body 11, field_entry field_body 12, field_entry field_name 3, field_entry field_name 6, field_entry field_parameters 4, field_entry field_parameters 8, inherited_entry field_raises_type 9, field_entry field_type_parameters 7]),
    (2257, [field_entry field_body 12, field_entry field_name 3, field_entry field_name 6, field_entry field_parameters 4, field_entry field_parameters 8, inherited_entry field_raises_type 9, field_entry field_type_parameters 7]),
    (2264, [field_entry field_body 12, field_entry field_name 3, field_entry field_name 6, field_entry field_parameters 4, field_entry field_parameters 8, inherited_entry field_raises_type 10, field_entry field_type_parameters 7])]"

definition field_map_entries_19 :: "(nat \<times> TSFieldMapEntry list) list" where "field_map_entries_19 = [

    (2271, [field_entry field_body 12, field_entry field_name 3, field_entry field_name 7, field_entry field_parameters 5, field_entry field_parameters 8, field_entry field_return_type 10, field_entry field_type_parameters 4]),
    (2278, [field_entry field_body 11, field_entry field_body 12, field_entry field_name 3, field_entry field_name 7, field_entry field_parameters 5, field_entry field_parameters 8, field_entry field_type_parameters 4]),
    (2285, [field_entry field_body 12, field_entry field_name 3, field_entry field_name 7, field_entry field_parameters 5, field_entry field_parameters 8, field_entry field_type_parameters 4]),
    (2291, [field_entry field_body 11, field_entry field_body 12, field_entry field_name 3, field_entry field_name 7, field_entry field_parameters 5, field_entry field_parameters 8, inherited_entry field_raises_type 9, field_entry field_type_parameters 4]),
    (2299, [field_entry field_body 12, field_entry field_name 3, field_entry field_name 7, field_entry field_parameters 5, field_entry field_parameters 8, inherited_entry field_raises_type 9, field_entry field_type_parameters 4]),
    (2306, [field_entry field_body 12, field_entry field_name 3, field_entry field_name 7, field_entry field_parameters 5, field_entry field_parameters 8, inherited_entry field_raises_type 10, field_entry field_type_parameters 4]),
    (2313, [field_entry field_body 11, field_entry field_body 12, field_entry field_name 3, field_entry field_name 7, field_entry field_parameters 5, field_entry field_parameters 9, field_entry field_type_parameters 4, field_entry field_type_parameters 8]),
    (2321, [field_entry field_body 12, field_entry field_name 3, field_entry field_name 7, field_entry field_parameters 5, field_entry field_parameters 9, field_entry field_type_parameters 4, field_entry field_type_parameters 8]),
    (2328, [field_entry field_body 12, field_entry field_name 3, field_entry field_name 7, field_entry field_parameters 5, field_entry field_parameters 9, inherited_entry field_raises_type 10, field_entry field_type_parameters 4, field_entry field_type_parameters 8]),
    (2336, [field_entry field_body 11, field_entry field_body 12, field_entry field_name 2, field_entry field_parameters 3, inherited_entry field_raises_type 4, field_entry field_return_type 8]),
    (2342, [field_entry field_body 11, field_entry field_body 12, field_entry field_name 2, field_entry field_parameters 3, field_entry field_return_type 8]),
    (2347, [field_entry field_body 11, field_entry field_body 12, field_entry field_name 2, field_entry field_parameters 3, inherited_entry field_raises_type 5, field_entry field_return_type 8]),
    (2353, [field_entry field_body 11, field_entry field_body 12, field_entry field_name 2, field_entry field_parameters 3, inherited_entry field_raises_type 5, field_entry field_return_type 9]),
    (2359, [field_entry field_body 12, field_entry field_name 2, field_entry field_parameters 3, inherited_entry field_raises_type 5, field_entry field_return_type 9]),
    (2364, [field_entry field_body 11, field_entry field_body 12, field_entry field_name 2, field_entry field_parameters 4, field_entry field_return_type 8, field_entry field_type_parameters 3]),
    (2370, [field_entry field_body 11, field_entry field_body 12, field_entry field_name 2, field_entry field_parameters 4, inherited_entry field_raises_type 5, field_entry field_return_type 8, field_entry field_type_parameters 3]),
    (2377, [field_entry field_body 11, field_entry field_body 12, field_entry field_name 2, field_entry field_parameters 4, inherited_entry field_raises_type 5, field_entry field_return_type 9, field_entry field_type_parameters 3]),
    (2384, [field_entry field_body 12, field_entry field_name 2, field_entry field_parameters 4, inherited_entry field_raises_type 5, field_entry field_return_type 9, field_entry field_type_parameters 3]),
    (2390, [field_entry field_body 11, field_entry field_body 12, field_entry field_name 2, field_entry field_parameters 4, field_entry field_return_type 9, field_entry field_type_parameters 3]),
    (2396, [field_entry field_body 12, field_entry field_name 2, field_entry field_parameters 4, field_entry field_return_type 9, field_entry field_type_parameters 3])]"

definition field_map_entries_20 :: "(nat \<times> TSFieldMapEntry list) list" where "field_map_entries_20 = [

    (2401, [field_entry field_body 11, field_entry field_body 12, field_entry field_name 2, field_entry field_parameters 4, inherited_entry field_raises_type 6, field_entry field_return_type 9, field_entry field_type_parameters 3]),
    (2408, [field_entry field_body 12, field_entry field_name 2, field_entry field_parameters 4, inherited_entry field_raises_type 6, field_entry field_return_type 9, field_entry field_type_parameters 3]),
    (2414, [field_entry field_body 11, field_entry field_body 12, field_entry field_name 2, field_entry field_parameters 4, inherited_entry field_raises_type 6, field_entry field_return_type 8, field_entry field_type_parameters 3]),
    (2421, [field_entry field_body 12, field_entry field_name 2, field_entry field_parameters 4, inherited_entry field_raises_type 6, field_entry field_return_type 10, field_entry field_type_parameters 3]),
    (2427, [field_entry field_body 11, field_entry field_body 12, field_entry field_name 2, field_entry field_name 5, field_entry field_parameters 3, field_entry field_parameters 6, field_entry field_return_type 9]),
    (2434, [field_entry field_body 12, field_entry field_name 2, field_entry field_name 5, field_entry field_parameters 3, field_entry field_parameters 6, field_entry field_return_type 9]),
    (2440, [field_entry field_body 11, field_entry field_body 12, field_entry field_name 2, field_entry field_name 5, field_entry field_parameters 3, field_entry field_parameters 6, field_entry field_return_type 8]),
    (2447, [field_entry field_body 12, field_entry field_name 2, field_entry field_name 5, field_entry field_parameters 3, field_entry field_parameters 6, field_entry field_return_type 10]),
    (2453, [field_entry field_body 12, field_entry field_name 2, field_entry field_name 5, field_entry field_parameters 3, field_entry field_parameters 6, inherited_entry field_raises_type 7, field_entry field_return_type 10]),
    (2460, [field_entry field_body 11, field_entry field_body 12, field_entry field_name 2, field_entry field_name 5, field_entry field_parameters 3, field_entry field_parameters 6, inherited_entry field_raises_type 7, field_entry field_return_type 9]),
    (2468, [field_entry field_body 12, field_entry field_name 2, field_entry field_name 5, field_entry field_parameters 3, field_entry field_parameters 6, inherited_entry field_raises_type 7, field_entry field_return_type 9]),
    (2475, [field_entry field_body 11, field_entry field_body 12, field_entry field_name 2, field_entry field_name 5, field_entry field_parameters 3, field_entry field_parameters 6, inherited_entry field_raises_type 7]),
    (2482, [field_entry field_body 11, field_entry field_body 12, field_entry field_name 2, field_entry field_name 5, field_entry field_parameters 3, field_entry field_parameters 6]),
    (2488, [field_entry field_body 12, field_entry field_name 2, field_entry field_name 5, field_entry field_parameters 3, field_entry field_parameters 6, inherited_entry field_raises_type 8, field_entry field_return_type 10]),
    (2495, [field_entry field_body 11, field_entry field_body 12, field_entry field_name 2, field_entry field_name 5, field_entry field_parameters 3, field_entry field_parameters 6, inherited_entry field_raises_type 8]),
    (2502, [field_entry field_body 12, field_entry field_name 2, field_entry field_name 5, field_entry field_parameters 3, field_entry field_parameters 6, inherited_entry field_raises_type 8]),
    (2508, [field_entry field_body 12, field_entry field_name 2, field_entry field_name 5, field_entry field_parameters 3, field_entry field_parameters 7, field_entry field_return_type 10, field_entry field_type_parameters 6]),
    (2515, [field_entry field_body 11, field_entry field_body 12, field_entry field_name 2, field_entry field_name 5, field_entry field_parameters 3, field_entry field_parameters 7, field_entry field_return_type 9, field_entry field_type_parameters 6]),
    (2523, [field_entry field_body 12, field_entry field_name 2, field_entry field_name 5, field_entry field_parameters 3, field_entry field_parameters 7, field_entry field_return_type 9, field_entry field_type_parameters 6])]"

definition field_map_entries_21 :: "(nat \<times> TSFieldMapEntry list) list" where "field_map_entries_21 = [

    (2530, [field_entry field_body 11, field_entry field_body 12, field_entry field_name 2, field_entry field_name 5, field_entry field_parameters 3, field_entry field_parameters 7, field_entry field_type_parameters 6]),
    (2537, [field_entry field_body 12, field_entry field_name 2, field_entry field_name 5, field_entry field_parameters 3, field_entry field_parameters 7, inherited_entry field_raises_type 8, field_entry field_return_type 10, field_entry field_type_parameters 6]),
    (2545, [field_entry field_body 11, field_entry field_body 12, field_entry field_name 2, field_entry field_name 5, field_entry field_parameters 3, field_entry field_parameters 7, inherited_entry field_raises_type 8, field_entry field_type_parameters 6]),
    (2553, [field_entry field_body 12, field_entry field_name 2, field_entry field_name 5, field_entry field_parameters 3, field_entry field_parameters 7, inherited_entry field_raises_type 8, field_entry field_type_parameters 6]),
    (2560, [field_entry field_body 12, field_entry field_name 2, field_entry field_name 5, field_entry field_parameters 3, field_entry field_parameters 7, field_entry field_type_parameters 6]),
    (2566, [field_entry field_body 11, field_entry field_body 12, field_entry field_name 2, field_entry field_name 5, field_entry field_parameters 3, field_entry field_parameters 7, inherited_entry field_raises_type 9, field_entry field_type_parameters 6]),
    (2574, [field_entry field_body 12, field_entry field_name 2, field_entry field_name 5, field_entry field_parameters 3, field_entry field_parameters 7, inherited_entry field_raises_type 9, field_entry field_type_parameters 6]),
    (2581, [field_entry field_body 12, field_entry field_name 2, field_entry field_name 6, field_entry field_parameters 4, field_entry field_parameters 7, field_entry field_return_type 10, field_entry field_type_parameters 3]),
    (2588, [field_entry field_body 11, field_entry field_body 12, field_entry field_name 2, field_entry field_name 6, field_entry field_parameters 4, field_entry field_parameters 7, field_entry field_return_type 9, field_entry field_type_parameters 3]),
    (2596, [field_entry field_body 12, field_entry field_name 2, field_entry field_name 6, field_entry field_parameters 4, field_entry field_parameters 7, field_entry field_return_type 9, field_entry field_type_parameters 3]),
    (2603, [field_entry field_body 11, field_entry field_body 12, field_entry field_name 2, field_entry field_name 6, field_entry field_parameters 4, field_entry field_parameters 7, field_entry field_type_parameters 3]),
    (2610, [field_entry field_body 12, field_entry field_name 2, field_entry field_name 6, field_entry field_parameters 4, field_entry field_parameters 7, inherited_entry field_raises_type 8, field_entry field_return_type 10, field_entry field_type_parameters 3]),
    (2618, [field_entry field_body 11, field_entry field_body 12, field_entry field_name 2, field_entry field_name 6, field_entry field_parameters 4, field_entry field_parameters 7, inherited_entry field_raises_type 8, field_entry field_type_parameters 3]),
    (2626, [field_entry field_body 12, field_entry field_name 2, field_entry field_name 6, field_entry field_parameters 4, field_entry field_parameters 7, inherited_entry field_raises_type 8, field_entry field_type_parameters 3]),
    (2633, [field_entry field_body 12, field_entry field_name 2, field_entry field_name 6, field_entry field_parameters 4, field_entry field_parameters 7, field_entry field_type_parameters 3]),
    (2639, [field_entry field_body 11, field_entry field_body 12, field_entry field_name 2, field_entry field_name 6, field_entry field_parameters 4, field_entry field_parameters 7, inherited_entry field_raises_type 9, field_entry field_type_parameters 3]),
    (2647, [field_entry field_body 12, field_entry field_name 2, field_entry field_name 6, field_entry field_parameters 4, field_entry field_parameters 7, inherited_entry field_raises_type 9, field_entry field_type_parameters 3]),
    (2654, [field_entry field_body 12, field_entry field_name 2, field_entry field_name 6, field_entry field_parameters 4, field_entry field_parameters 8, field_entry field_return_type 10, field_entry field_type_parameters 3, field_entry field_type_parameters 7])]"

definition field_map_entries_22 :: "(nat \<times> TSFieldMapEntry list) list" where "field_map_entries_22 = [

    (2662, [field_entry field_body 11, field_entry field_body 12, field_entry field_name 2, field_entry field_name 6, field_entry field_parameters 4, field_entry field_parameters 8, field_entry field_type_parameters 3, field_entry field_type_parameters 7]),
    (2670, [field_entry field_body 12, field_entry field_name 2, field_entry field_name 6, field_entry field_parameters 4, field_entry field_parameters 8, field_entry field_type_parameters 3, field_entry field_type_parameters 7]),
    (2677, [field_entry field_body 11, field_entry field_body 12, field_entry field_name 2, field_entry field_name 6, field_entry field_parameters 4, field_entry field_parameters 8, inherited_entry field_raises_type 9, field_entry field_type_parameters 3, field_entry field_type_parameters 7]),
    (2686, [field_entry field_body 12, field_entry field_name 2, field_entry field_name 6, field_entry field_parameters 4, field_entry field_parameters 8, inherited_entry field_raises_type 9, field_entry field_type_parameters 3, field_entry field_type_parameters 7]),
    (2694, [field_entry field_body 12, field_entry field_name 2, field_entry field_name 6, field_entry field_parameters 4, field_entry field_parameters 8, inherited_entry field_raises_type 10, field_entry field_type_parameters 3, field_entry field_type_parameters 7]),
    (2702, [field_entry field_body 11, field_entry field_body 12, field_entry field_name 1, field_entry field_parameters 2, inherited_entry field_raises_type 4, field_entry field_return_type 8]),
    (2708, [field_entry field_body 11, field_entry field_body 12, field_entry field_name 1, field_entry field_parameters 3, inherited_entry field_raises_type 4, field_entry field_return_type 8, field_entry field_type_parameters 2]),
    (2715, [field_entry field_body 11, field_entry field_body 12, field_entry field_name 1, field_entry field_parameters 3, field_entry field_return_type 8, field_entry field_type_parameters 2]),
    (2721, [field_entry field_body 11, field_entry field_body 12, field_entry field_name 1, field_entry field_parameters 3, inherited_entry field_raises_type 5, field_entry field_return_type 8, field_entry field_type_parameters 2]),
    (2728, [field_entry field_body 11, field_entry field_body 12, field_entry field_name 1, field_entry field_parameters 3, inherited_entry field_raises_type 5, field_entry field_return_type 9, field_entry field_type_parameters 2]),
    (2735, [field_entry field_body 12, field_entry field_name 1, field_entry field_parameters 3, inherited_entry field_raises_type 5, field_entry field_return_type 9, field_entry field_type_parameters 2]),
    (2741, [field_entry field_parameter 3, inherited_entry field_parameter 4, inherited_entry field_raises_type 7, field_entry field_return_type 11]),
    (2745, [field_entry field_parameter 4, inherited_entry field_raises_type 7, field_entry field_return_type 11, field_entry field_type_parameters 1]),
    (2749, [field_entry field_parameter 4, inherited_entry field_parameter 5, inherited_entry field_raises_type 7, field_entry field_return_type 11, field_entry field_type_parameters 1]),
    (2754, [field_entry field_parameter 4, inherited_entry field_parameter 5, field_entry field_return_type 11, field_entry field_type_parameters 1]),
    (2758, [field_entry field_parameter 4, inherited_entry field_parameter 5, inherited_entry field_raises_type 8, field_entry field_return_type 11, field_entry field_type_parameters 1]),
    (2763, [field_entry field_parameter 3, inherited_entry field_parameter 4, inherited_entry field_raises_type 7, field_entry field_return_type 11, field_entry field_type_parameters 1]),
    (2768, [field_entry field_body 12, field_entry field_body 13, field_entry field_name 3, field_entry field_name 6, field_entry field_parameters 4, field_entry field_parameters 7, field_entry field_return_type 10]),
    (2775, [field_entry field_body 13, field_entry field_name 3, field_entry field_name 6, field_entry field_parameters 4, field_entry field_parameters 7, field_entry field_return_type 10]),
    (2781, [field_entry field_body 12, field_entry field_body 13, field_entry field_name 3, field_entry field_name 6, field_entry field_parameters 4, field_entry field_parameters 7, field_entry field_return_type 9])]"

definition field_map_entries_23 :: "(nat \<times> TSFieldMapEntry list) list" where "field_map_entries_23 = [

    (2788, [field_entry field_body 13, field_entry field_name 3, field_entry field_name 6, field_entry field_parameters 4, field_entry field_parameters 7, field_entry field_return_type 11]),
    (2794, [field_entry field_body 13, field_entry field_name 3, field_entry field_name 6, field_entry field_parameters 4, field_entry field_parameters 7, inherited_entry field_raises_type 8, field_entry field_return_type 11]),
    (2801, [field_entry field_body 12, field_entry field_body 13, field_entry field_name 3, field_entry field_name 6, field_entry field_parameters 4, field_entry field_parameters 7, inherited_entry field_raises_type 8, field_entry field_return_type 10]),
    (2809, [field_entry field_body 13, field_entry field_name 3, field_entry field_name 6, field_entry field_parameters 4, field_entry field_parameters 7, inherited_entry field_raises_type 8, field_entry field_return_type 10]),
    (2816, [field_entry field_body 12, field_entry field_body 13, field_entry field_name 3, field_entry field_name 6, field_entry field_parameters 4, field_entry field_parameters 7, inherited_entry field_raises_type 8]),
    (2823, [field_entry field_body 12, field_entry field_body 13, field_entry field_name 3, field_entry field_name 6, field_entry field_parameters 4, field_entry field_parameters 7]),
    (2829, [field_entry field_body 13, field_entry field_name 3, field_entry field_name 6, field_entry field_parameters 4, field_entry field_parameters 7, inherited_entry field_raises_type 9, field_entry field_return_type 11]),
    (2836, [field_entry field_body 12, field_entry field_body 13, field_entry field_name 3, field_entry field_name 6, field_entry field_parameters 4, field_entry field_parameters 7, inherited_entry field_raises_type 9]),
    (2843, [field_entry field_body 13, field_entry field_name 3, field_entry field_name 6, field_entry field_parameters 4, field_entry field_parameters 7, inherited_entry field_raises_type 9]),
    (2849, [field_entry field_body 13, field_entry field_name 3, field_entry field_name 6, field_entry field_parameters 4, field_entry field_parameters 8, field_entry field_return_type 11, field_entry field_type_parameters 7]),
    (2856, [field_entry field_body 12, field_entry field_body 13, field_entry field_name 3, field_entry field_name 6, field_entry field_parameters 4, field_entry field_parameters 8, field_entry field_return_type 10, field_entry field_type_parameters 7]),
    (2864, [field_entry field_body 13, field_entry field_name 3, field_entry field_name 6, field_entry field_parameters 4, field_entry field_parameters 8, field_entry field_return_type 10, field_entry field_type_parameters 7]),
    (2871, [field_entry field_body 12, field_entry field_body 13, field_entry field_name 3, field_entry field_name 6, field_entry field_parameters 4, field_entry field_parameters 8, field_entry field_type_parameters 7]),
    (2878, [field_entry field_body 13, field_entry field_name 3, field_entry field_name 6, field_entry field_parameters 4, field_entry field_parameters 8, inherited_entry field_raises_type 9, field_entry field_return_type 11, field_entry field_type_parameters 7]),
    (2886, [field_entry field_body 12, field_entry field_body 13, field_entry field_name 3, field_entry field_name 6, field_entry field_parameters 4, field_entry field_parameters 8, inherited_entry field_raises_type 9, field_entry field_type_parameters 7]),
    (2894, [field_entry field_body 13, field_entry field_name 3, field_entry field_name 6, field_entry field_parameters 4, field_entry field_parameters 8, inherited_entry field_raises_type 9, field_entry field_type_parameters 7]),
    (2901, [field_entry field_body 13, field_entry field_name 3, field_entry field_name 6, field_entry field_parameters 4, field_entry field_parameters 8, field_entry field_type_parameters 7]),
    (2907, [field_entry field_body 12, field_entry field_body 13, field_entry field_name 3, field_entry field_name 6, field_entry field_parameters 4, field_entry field_parameters 8, inherited_entry field_raises_type 10, field_entry field_type_parameters 7])]"

definition field_map_entries_24 :: "(nat \<times> TSFieldMapEntry list) list" where "field_map_entries_24 = [

    (2915, [field_entry field_body 13, field_entry field_name 3, field_entry field_name 6, field_entry field_parameters 4, field_entry field_parameters 8, inherited_entry field_raises_type 10, field_entry field_type_parameters 7]),
    (2922, [field_entry field_body 13, field_entry field_name 3, field_entry field_name 7, field_entry field_parameters 5, field_entry field_parameters 8, field_entry field_return_type 11, field_entry field_type_parameters 4]),
    (2929, [field_entry field_body 12, field_entry field_body 13, field_entry field_name 3, field_entry field_name 7, field_entry field_parameters 5, field_entry field_parameters 8, field_entry field_return_type 10, field_entry field_type_parameters 4]),
    (2937, [field_entry field_body 13, field_entry field_name 3, field_entry field_name 7, field_entry field_parameters 5, field_entry field_parameters 8, field_entry field_return_type 10, field_entry field_type_parameters 4]),
    (2944, [field_entry field_body 12, field_entry field_body 13, field_entry field_name 3, field_entry field_name 7, field_entry field_parameters 5, field_entry field_parameters 8, field_entry field_type_parameters 4]),
    (2951, [field_entry field_body 13, field_entry field_name 3, field_entry field_name 7, field_entry field_parameters 5, field_entry field_parameters 8, inherited_entry field_raises_type 9, field_entry field_return_type 11, field_entry field_type_parameters 4]),
    (2959, [field_entry field_body 12, field_entry field_body 13, field_entry field_name 3, field_entry field_name 7, field_entry field_parameters 5, field_entry field_parameters 8, inherited_entry field_raises_type 9, field_entry field_type_parameters 4]),
    (2967, [field_entry field_body 13, field_entry field_name 3, field_entry field_name 7, field_entry field_parameters 5, field_entry field_parameters 8, inherited_entry field_raises_type 9, field_entry field_type_parameters 4]),
    (2974, [field_entry field_body 13, field_entry field_name 3, field_entry field_name 7, field_entry field_parameters 5, field_entry field_parameters 8, field_entry field_type_parameters 4]),
    (2980, [field_entry field_body 12, field_entry field_body 13, field_entry field_name 3, field_entry field_name 7, field_entry field_parameters 5, field_entry field_parameters 8, inherited_entry field_raises_type 10, field_entry field_type_parameters 4]),
    (2988, [field_entry field_body 13, field_entry field_name 3, field_entry field_name 7, field_entry field_parameters 5, field_entry field_parameters 8, inherited_entry field_raises_type 10, field_entry field_type_parameters 4]),
    (2995, [field_entry field_body 13, field_entry field_name 3, field_entry field_name 7, field_entry field_parameters 5, field_entry field_parameters 9, field_entry field_return_type 11, field_entry field_type_parameters 4, field_entry field_type_parameters 8]),
    (3003, [field_entry field_body 12, field_entry field_body 13, field_entry field_name 3, field_entry field_name 7, field_entry field_parameters 5, field_entry field_parameters 9, field_entry field_type_parameters 4, field_entry field_type_parameters 8]),
    (3011, [field_entry field_body 13, field_entry field_name 3, field_entry field_name 7, field_entry field_parameters 5, field_entry field_parameters 9, field_entry field_type_parameters 4, field_entry field_type_parameters 8]),
    (3018, [field_entry field_body 12, field_entry field_body 13, field_entry field_name 3, field_entry field_name 7, field_entry field_parameters 5, field_entry field_parameters 9, inherited_entry field_raises_type 10, field_entry field_type_parameters 4, field_entry field_type_parameters 8]),
    (3027, [field_entry field_body 13, field_entry field_name 3, field_entry field_name 7, field_entry field_parameters 5, field_entry field_parameters 9, inherited_entry field_raises_type 10, field_entry field_type_parameters 4, field_entry field_type_parameters 8]),
    (3035, [field_entry field_body 13, field_entry field_name 3, field_entry field_name 7, field_entry field_parameters 5, field_entry field_parameters 9, inherited_entry field_raises_type 11, field_entry field_type_parameters 4, field_entry field_type_parameters 8])]"

definition field_map_entries_25 :: "(nat \<times> TSFieldMapEntry list) list" where "field_map_entries_25 = [

    (3043, [field_entry field_body 12, field_entry field_body 13, field_entry field_name 2, field_entry field_parameters 3, inherited_entry field_raises_type 5, field_entry field_return_type 9]),
    (3049, [field_entry field_body 12, field_entry field_body 13, field_entry field_name 2, field_entry field_parameters 4, inherited_entry field_raises_type 5, field_entry field_return_type 9, field_entry field_type_parameters 3]),
    (3056, [field_entry field_body 12, field_entry field_body 13, field_entry field_name 2, field_entry field_parameters 4, field_entry field_return_type 9, field_entry field_type_parameters 3]),
    (3062, [field_entry field_body 12, field_entry field_body 13, field_entry field_name 2, field_entry field_parameters 4, inherited_entry field_raises_type 6, field_entry field_return_type 9, field_entry field_type_parameters 3]),
    (3069, [field_entry field_body 12, field_entry field_body 13, field_entry field_name 2, field_entry field_parameters 4, inherited_entry field_raises_type 6, field_entry field_return_type 10, field_entry field_type_parameters 3]),
    (3076, [field_entry field_body 13, field_entry field_name 2, field_entry field_parameters 4, inherited_entry field_raises_type 6, field_entry field_return_type 10, field_entry field_type_parameters 3]),
    (3082, [field_entry field_body 12, field_entry field_body 13, field_entry field_name 2, field_entry field_name 5, field_entry field_parameters 3, field_entry field_parameters 6, field_entry field_return_type 9]),
    (3089, [field_entry field_body 12, field_entry field_body 13, field_entry field_name 2, field_entry field_name 5, field_entry field_parameters 3, field_entry field_parameters 6, field_entry field_return_type 10]),
    (3096, [field_entry field_body 13, field_entry field_name 2, field_entry field_name 5, field_entry field_parameters 3, field_entry field_parameters 6, field_entry field_return_type 10]),
    (3102, [field_entry field_body 12, field_entry field_body 13, field_entry field_name 2, field_entry field_name 5, field_entry field_parameters 3, field_entry field_parameters 6, inherited_entry field_raises_type 7, field_entry field_return_type 10]),
    (3110, [field_entry field_body 13, field_entry field_name 2, field_entry field_name 5, field_entry field_parameters 3, field_entry field_parameters 6, inherited_entry field_raises_type 7, field_entry field_return_type 10]),
    (3117, [field_entry field_body 12, field_entry field_body 13, field_entry field_name 2, field_entry field_name 5, field_entry field_parameters 3, field_entry field_parameters 6, inherited_entry field_raises_type 7, field_entry field_return_type 9]),
    (3125, [field_entry field_body 13, field_entry field_name 2, field_entry field_name 5, field_entry field_parameters 3, field_entry field_parameters 6, inherited_entry field_raises_type 7, field_entry field_return_type 11]),
    (3132, [field_entry field_body 13, field_entry field_name 2, field_entry field_name 5, field_entry field_parameters 3, field_entry field_parameters 6, field_entry field_return_type 11]),
    (3138, [field_entry field_body 13, field_entry field_name 2, field_entry field_name 5, field_entry field_parameters 3, field_entry field_parameters 6, inherited_entry field_raises_type 8, field_entry field_return_type 11]),
    (3145, [field_entry field_body 12, field_entry field_body 13, field_entry field_name 2, field_entry field_name 5, field_entry field_parameters 3, field_entry field_parameters 6, inherited_entry field_raises_type 8, field_entry field_return_type 10]),
    (3153, [field_entry field_body 13, field_entry field_name 2, field_entry field_name 5, field_entry field_parameters 3, field_entry field_parameters 6, inherited_entry field_raises_type 8, field_entry field_return_type 10]),
    (3160, [field_entry field_body 12, field_entry field_body 13, field_entry field_name 2, field_entry field_name 5, field_entry field_parameters 3, field_entry field_parameters 6, inherited_entry field_raises_type 8])]"

definition field_map_entries_26 :: "(nat \<times> TSFieldMapEntry list) list" where "field_map_entries_26 = [

    (3167, [field_entry field_body 12, field_entry field_body 13, field_entry field_name 2, field_entry field_name 5, field_entry field_parameters 3, field_entry field_parameters 7, field_entry field_return_type 10, field_entry field_type_parameters 6]),
    (3175, [field_entry field_body 13, field_entry field_name 2, field_entry field_name 5, field_entry field_parameters 3, field_entry field_parameters 7, field_entry field_return_type 10, field_entry field_type_parameters 6]),
    (3182, [field_entry field_body 12, field_entry field_body 13, field_entry field_name 2, field_entry field_name 5, field_entry field_parameters 3, field_entry field_parameters 7, field_entry field_return_type 9, field_entry field_type_parameters 6]),
    (3190, [field_entry field_body 13, field_entry field_name 2, field_entry field_name 5, field_entry field_parameters 3, field_entry field_parameters 7, field_entry field_return_type 11, field_entry field_type_parameters 6]),
    (3197, [field_entry field_body 13, field_entry field_name 2, field_entry field_name 5, field_entry field_parameters 3, field_entry field_parameters 7, inherited_entry field_raises_type 8, field_entry field_return_type 11, field_entry field_type_parameters 6]),
    (3205, [field_entry field_body 12, field_entry field_body 13, field_entry field_name 2, field_entry field_name 5, field_entry field_parameters 3, field_entry field_parameters 7, inherited_entry field_raises_type 8, field_entry field_return_type 10, field_entry field_type_parameters 6]),
    (3214, [field_entry field_body 13, field_entry field_name 2, field_entry field_name 5, field_entry field_parameters 3, field_entry field_parameters 7, inherited_entry field_raises_type 8, field_entry field_return_type 10, field_entry field_type_parameters 6]),
    (3222, [field_entry field_body 12, field_entry field_body 13, field_entry field_name 2, field_entry field_name 5, field_entry field_parameters 3, field_entry field_parameters 7, inherited_entry field_raises_type 8, field_entry field_type_parameters 6]),
    (3230, [field_entry field_body 12, field_entry field_body 13, field_entry field_name 2, field_entry field_name 5, field_entry field_parameters 3, field_entry field_parameters 7, field_entry field_type_parameters 6]),
    (3237, [field_entry field_body 13, field_entry field_name 2, field_entry field_name 5, field_entry field_parameters 3, field_entry field_parameters 7, inherited_entry field_raises_type 9, field_entry field_return_type 11, field_entry field_type_parameters 6]),
    (3245, [field_entry field_body 12, field_entry field_body 13, field_entry field_name 2, field_entry field_name 5, field_entry field_parameters 3, field_entry field_parameters 7, inherited_entry field_raises_type 9, field_entry field_type_parameters 6]),
    (3253, [field_entry field_body 13, field_entry field_name 2, field_entry field_name 5, field_entry field_parameters 3, field_entry field_parameters 7, inherited_entry field_raises_type 9, field_entry field_type_parameters 6]),
    (3260, [field_entry field_body 12, field_entry field_body 13, field_entry field_name 2, field_entry field_name 6, field_entry field_parameters 4, field_entry field_parameters 7, field_entry field_return_type 10, field_entry field_type_parameters 3]),
    (3268, [field_entry field_body 13, field_entry field_name 2, field_entry field_name 6, field_entry field_parameters 4, field_entry field_parameters 7, field_entry field_return_type 10, field_entry field_type_parameters 3]),
    (3275, [field_entry field_body 12, field_entry field_body 13, field_entry field_name 2, field_entry field_name 6, field_entry field_parameters 4, field_entry field_parameters 7, field_entry field_return_type 9, field_entry field_type_parameters 3]),
    (3283, [field_entry field_body 13, field_entry field_name 2, field_entry field_name 6, field_entry field_parameters 4, field_entry field_parameters 7, field_entry field_return_type 11, field_entry field_type_parameters 3]),
    (3290, [field_entry field_body 13, field_entry field_name 2, field_entry field_name 6, field_entry field_parameters 4, field_entry field_parameters 7, inherited_entry field_raises_type 8, field_entry field_return_type 11, field_entry field_type_parameters 3])]"

definition field_map_entries_27 :: "(nat \<times> TSFieldMapEntry list) list" where "field_map_entries_27 = [

    (3298, [field_entry field_body 12, field_entry field_body 13, field_entry field_name 2, field_entry field_name 6, field_entry field_parameters 4, field_entry field_parameters 7, inherited_entry field_raises_type 8, field_entry field_return_type 10, field_entry field_type_parameters 3]),
    (3307, [field_entry field_body 13, field_entry field_name 2, field_entry field_name 6, field_entry field_parameters 4, field_entry field_parameters 7, inherited_entry field_raises_type 8, field_entry field_return_type 10, field_entry field_type_parameters 3]),
    (3315, [field_entry field_body 12, field_entry field_body 13, field_entry field_name 2, field_entry field_name 6, field_entry field_parameters 4, field_entry field_parameters 7, inherited_entry field_raises_type 8, field_entry field_type_parameters 3]),
    (3323, [field_entry field_body 12, field_entry field_body 13, field_entry field_name 2, field_entry field_name 6, field_entry field_parameters 4, field_entry field_parameters 7, field_entry field_type_parameters 3]),
    (3330, [field_entry field_body 13, field_entry field_name 2, field_entry field_name 6, field_entry field_parameters 4, field_entry field_parameters 7, inherited_entry field_raises_type 9, field_entry field_return_type 11, field_entry field_type_parameters 3]),
    (3338, [field_entry field_body 12, field_entry field_body 13, field_entry field_name 2, field_entry field_name 6, field_entry field_parameters 4, field_entry field_parameters 7, inherited_entry field_raises_type 9, field_entry field_type_parameters 3]),
    (3346, [field_entry field_body 13, field_entry field_name 2, field_entry field_name 6, field_entry field_parameters 4, field_entry field_parameters 7, inherited_entry field_raises_type 9, field_entry field_type_parameters 3]),
    (3353, [field_entry field_body 13, field_entry field_name 2, field_entry field_name 6, field_entry field_parameters 4, field_entry field_parameters 8, field_entry field_return_type 11, field_entry field_type_parameters 3, field_entry field_type_parameters 7]),
    (3361, [field_entry field_body 12, field_entry field_body 13, field_entry field_name 2, field_entry field_name 6, field_entry field_parameters 4, field_entry field_parameters 8, field_entry field_return_type 10, field_entry field_type_parameters 3, field_entry field_type_parameters 7]),
    (3370, [field_entry field_body 13, field_entry field_name 2, field_entry field_name 6, field_entry field_parameters 4, field_entry field_parameters 8, field_entry field_return_type 10, field_entry field_type_parameters 3, field_entry field_type_parameters 7]),
    (3378, [field_entry field_body 12, field_entry field_body 13, field_entry field_name 2, field_entry field_name 6, field_entry field_parameters 4, field_entry field_parameters 8, field_entry field_type_parameters 3, field_entry field_type_parameters 7]),
    (3386, [field_entry field_body 13, field_entry field_name 2, field_entry field_name 6, field_entry field_parameters 4, field_entry field_parameters 8, inherited_entry field_raises_type 9, field_entry field_return_type 11, field_entry field_type_parameters 3, field_entry field_type_parameters 7]),
    (3395, [field_entry field_body 12, field_entry field_body 13, field_entry field_name 2, field_entry field_name 6, field_entry field_parameters 4, field_entry field_parameters 8, inherited_entry field_raises_type 9, field_entry field_type_parameters 3, field_entry field_type_parameters 7]),
    (3404, [field_entry field_body 13, field_entry field_name 2, field_entry field_name 6, field_entry field_parameters 4, field_entry field_parameters 8, inherited_entry field_raises_type 9, field_entry field_type_parameters 3, field_entry field_type_parameters 7]),
    (3412, [field_entry field_body 13, field_entry field_name 2, field_entry field_name 6, field_entry field_parameters 4, field_entry field_parameters 8, field_entry field_type_parameters 3, field_entry field_type_parameters 7]),
    (3419, [field_entry field_body 12, field_entry field_body 13, field_entry field_name 2, field_entry field_name 6, field_entry field_parameters 4, field_entry field_parameters 8, inherited_entry field_raises_type 10, field_entry field_type_parameters 3, field_entry field_type_parameters 7])]"

definition field_map_entries_28 :: "(nat \<times> TSFieldMapEntry list) list" where "field_map_entries_28 = [

    (3428, [field_entry field_body 13, field_entry field_name 2, field_entry field_name 6, field_entry field_parameters 4, field_entry field_parameters 8, inherited_entry field_raises_type 10, field_entry field_type_parameters 3, field_entry field_type_parameters 7]),
    (3436, [field_entry field_body 12, field_entry field_body 13, field_entry field_name 1, field_entry field_parameters 3, inherited_entry field_raises_type 5, field_entry field_return_type 9, field_entry field_type_parameters 2]),
    (3443, [field_entry field_parameter 4, inherited_entry field_parameter 5, inherited_entry field_raises_type 8, field_entry field_return_type 12, field_entry field_type_parameters 1]),
    (3448, [field_entry field_body 13, field_entry field_body 14, field_entry field_name 3, field_entry field_name 6, field_entry field_parameters 4, field_entry field_parameters 7, field_entry field_return_type 10]),
    (3455, [field_entry field_body 13, field_entry field_body 14, field_entry field_name 3, field_entry field_name 6, field_entry field_parameters 4, field_entry field_parameters 7, field_entry field_return_type 11]),
    (3462, [field_entry field_body 14, field_entry field_name 3, field_entry field_name 6, field_entry field_parameters 4, field_entry field_parameters 7, field_entry field_return_type 11]),
    (3468, [field_entry field_body 13, field_entry field_body 14, field_entry field_name 3, field_entry field_name 6, field_entry field_parameters 4, field_entry field_parameters 7, inherited_entry field_raises_type 8, field_entry field_return_type 11]),
    (3476, [field_entry field_body 14, field_entry field_name 3, field_entry field_name 6, field_entry field_parameters 4, field_entry field_parameters 7, inherited_entry field_raises_type 8, field_entry field_return_type 11]),
    (3483, [field_entry field_body 13, field_entry field_body 14, field_entry field_name 3, field_entry field_name 6, field_entry field_parameters 4, field_entry field_parameters 7, inherited_entry field_raises_type 8, field_entry field_return_type 10]),
    (3491, [field_entry field_body 14, field_entry field_name 3, field_entry field_name 6, field_entry field_parameters 4, field_entry field_parameters 7, inherited_entry field_raises_type 8, field_entry field_return_type 12]),
    (3498, [field_entry field_body 14, field_entry field_name 3, field_entry field_name 6, field_entry field_parameters 4, field_entry field_parameters 7, field_entry field_return_type 12]),
    (3504, [field_entry field_body 14, field_entry field_name 3, field_entry field_name 6, field_entry field_parameters 4, field_entry field_parameters 7, inherited_entry field_raises_type 9, field_entry field_return_type 12]),
    (3511, [field_entry field_body 13, field_entry field_body 14, field_entry field_name 3, field_entry field_name 6, field_entry field_parameters 4, field_entry field_parameters 7, inherited_entry field_raises_type 9, field_entry field_return_type 11]),
    (3519, [field_entry field_body 14, field_entry field_name 3, field_entry field_name 6, field_entry field_parameters 4, field_entry field_parameters 7, inherited_entry field_raises_type 9, field_entry field_return_type 11]),
    (3526, [field_entry field_body 13, field_entry field_body 14, field_entry field_name 3, field_entry field_name 6, field_entry field_parameters 4, field_entry field_parameters 7, inherited_entry field_raises_type 9]),
    (3533, [field_entry field_body 13, field_entry field_body 14, field_entry field_name 3, field_entry field_name 6, field_entry field_parameters 4, field_entry field_parameters 8, field_entry field_return_type 11, field_entry field_type_parameters 7]),
    (3541, [field_entry field_body 14, field_entry field_name 3, field_entry field_name 6, field_entry field_parameters 4, field_entry field_parameters 8, field_entry field_return_type 11, field_entry field_type_parameters 7]),
    (3548, [field_entry field_body 13, field_entry field_body 14, field_entry field_name 3, field_entry field_name 6, field_entry field_parameters 4, field_entry field_parameters 8, field_entry field_return_type 10, field_entry field_type_parameters 7])]"

definition field_map_entries_29 :: "(nat \<times> TSFieldMapEntry list) list" where "field_map_entries_29 = [

    (3556, [field_entry field_body 14, field_entry field_name 3, field_entry field_name 6, field_entry field_parameters 4, field_entry field_parameters 8, field_entry field_return_type 12, field_entry field_type_parameters 7]),
    (3563, [field_entry field_body 14, field_entry field_name 3, field_entry field_name 6, field_entry field_parameters 4, field_entry field_parameters 8, inherited_entry field_raises_type 9, field_entry field_return_type 12, field_entry field_type_parameters 7]),
    (3571, [field_entry field_body 13, field_entry field_body 14, field_entry field_name 3, field_entry field_name 6, field_entry field_parameters 4, field_entry field_parameters 8, inherited_entry field_raises_type 9, field_entry field_return_type 11, field_entry field_type_parameters 7]),
    (3580, [field_entry field_body 14, field_entry field_name 3, field_entry field_name 6, field_entry field_parameters 4, field_entry field_parameters 8, inherited_entry field_raises_type 9, field_entry field_return_type 11, field_entry field_type_parameters 7]),
    (3588, [field_entry field_body 13, field_entry field_body 14, field_entry field_name 3, field_entry field_name 6, field_entry field_parameters 4, field_entry field_parameters 8, inherited_entry field_raises_type 9, field_entry field_type_parameters 7]),
    (3596, [field_entry field_body 13, field_entry field_body 14, field_entry field_name 3, field_entry field_name 6, field_entry field_parameters 4, field_entry field_parameters 8, field_entry field_type_parameters 7]),
    (3603, [field_entry field_body 14, field_entry field_name 3, field_entry field_name 6, field_entry field_parameters 4, field_entry field_parameters 8, inherited_entry field_raises_type 10, field_entry field_return_type 12, field_entry field_type_parameters 7]),
    (3611, [field_entry field_body 13, field_entry field_body 14, field_entry field_name 3, field_entry field_name 6, field_entry field_parameters 4, field_entry field_parameters 8, inherited_entry field_raises_type 10, field_entry field_type_parameters 7]),
    (3619, [field_entry field_body 14, field_entry field_name 3, field_entry field_name 6, field_entry field_parameters 4, field_entry field_parameters 8, inherited_entry field_raises_type 10, field_entry field_type_parameters 7]),
    (3626, [field_entry field_body 13, field_entry field_body 14, field_entry field_name 3, field_entry field_name 7, field_entry field_parameters 5, field_entry field_parameters 8, field_entry field_return_type 11, field_entry field_type_parameters 4]),
    (3634, [field_entry field_body 14, field_entry field_name 3, field_entry field_name 7, field_entry field_parameters 5, field_entry field_parameters 8, field_entry field_return_type 11, field_entry field_type_parameters 4]),
    (3641, [field_entry field_body 13, field_entry field_body 14, field_entry field_name 3, field_entry field_name 7, field_entry field_parameters 5, field_entry field_parameters 8, field_entry field_return_type 10, field_entry field_type_parameters 4]),
    (3649, [field_entry field_body 14, field_entry field_name 3, field_entry field_name 7, field_entry field_parameters 5, field_entry field_parameters 8, field_entry field_return_type 12, field_entry field_type_parameters 4]),
    (3656, [field_entry field_body 14, field_entry field_name 3, field_entry field_name 7, field_entry field_parameters 5, field_entry field_parameters 8, inherited_entry field_raises_type 9, field_entry field_return_type 12, field_entry field_type_parameters 4]),
    (3664, [field_entry field_body 13, field_entry field_body 14, field_entry field_name 3, field_entry field_name 7, field_entry field_parameters 5, field_entry field_parameters 8, inherited_entry field_raises_type 9, field_entry field_return_type 11, field_entry field_type_parameters 4]),
    (3673, [field_entry field_body 14, field_entry field_name 3, field_entry field_name 7, field_entry field_parameters 5, field_entry field_parameters 8, inherited_entry field_raises_type 9, field_entry field_return_type 11, field_entry field_type_parameters 4]),
    (3681, [field_entry field_body 13, field_entry field_body 14, field_entry field_name 3, field_entry field_name 7, field_entry field_parameters 5, field_entry field_parameters 8, inherited_entry field_raises_type 9, field_entry field_type_parameters 4])]"

definition field_map_entries_30 :: "(nat \<times> TSFieldMapEntry list) list" where "field_map_entries_30 = [

    (3689, [field_entry field_body 13, field_entry field_body 14, field_entry field_name 3, field_entry field_name 7, field_entry field_parameters 5, field_entry field_parameters 8, field_entry field_type_parameters 4]),
    (3696, [field_entry field_body 14, field_entry field_name 3, field_entry field_name 7, field_entry field_parameters 5, field_entry field_parameters 8, inherited_entry field_raises_type 10, field_entry field_return_type 12, field_entry field_type_parameters 4]),
    (3704, [field_entry field_body 13, field_entry field_body 14, field_entry field_name 3, field_entry field_name 7, field_entry field_parameters 5, field_entry field_parameters 8, inherited_entry field_raises_type 10, field_entry field_type_parameters 4]),
    (3712, [field_entry field_body 14, field_entry field_name 3, field_entry field_name 7, field_entry field_parameters 5, field_entry field_parameters 8, inherited_entry field_raises_type 10, field_entry field_type_parameters 4]),
    (3719, [field_entry field_body 14, field_entry field_name 3, field_entry field_name 7, field_entry field_parameters 5, field_entry field_parameters 9, field_entry field_return_type 12, field_entry field_type_parameters 4, field_entry field_type_parameters 8]),
    (3727, [field_entry field_body 13, field_entry field_body 14, field_entry field_name 3, field_entry field_name 7, field_entry field_parameters 5, field_entry field_parameters 9, field_entry field_return_type 11, field_entry field_type_parameters 4, field_entry field_type_parameters 8]),
    (3736, [field_entry field_body 14, field_entry field_name 3, field_entry field_name 7, field_entry field_parameters 5, field_entry field_parameters 9, field_entry field_return_type 11, field_entry field_type_parameters 4, field_entry field_type_parameters 8]),
    (3744, [field_entry field_body 13, field_entry field_body 14, field_entry field_name 3, field_entry field_name 7, field_entry field_parameters 5, field_entry field_parameters 9, field_entry field_type_parameters 4, field_entry field_type_parameters 8]),
    (3752, [field_entry field_body 14, field_entry field_name 3, field_entry field_name 7, field_entry field_parameters 5, field_entry field_parameters 9, inherited_entry field_raises_type 10, field_entry field_return_type 12, field_entry field_type_parameters 4, field_entry field_type_parameters 8]),
    (3761, [field_entry field_body 13, field_entry field_body 14, field_entry field_name 3, field_entry field_name 7, field_entry field_parameters 5, field_entry field_parameters 9, inherited_entry field_raises_type 10, field_entry field_type_parameters 4, field_entry field_type_parameters 8]),
    (3770, [field_entry field_body 14, field_entry field_name 3, field_entry field_name 7, field_entry field_parameters 5, field_entry field_parameters 9, inherited_entry field_raises_type 10, field_entry field_type_parameters 4, field_entry field_type_parameters 8]),
    (3778, [field_entry field_body 14, field_entry field_name 3, field_entry field_name 7, field_entry field_parameters 5, field_entry field_parameters 9, field_entry field_type_parameters 4, field_entry field_type_parameters 8]),
    (3785, [field_entry field_body 13, field_entry field_body 14, field_entry field_name 3, field_entry field_name 7, field_entry field_parameters 5, field_entry field_parameters 9, inherited_entry field_raises_type 11, field_entry field_type_parameters 4, field_entry field_type_parameters 8]),
    (3794, [field_entry field_body 14, field_entry field_name 3, field_entry field_name 7, field_entry field_parameters 5, field_entry field_parameters 9, inherited_entry field_raises_type 11, field_entry field_type_parameters 4, field_entry field_type_parameters 8]),
    (3802, [field_entry field_body 13, field_entry field_body 14, field_entry field_name 2, field_entry field_parameters 4, inherited_entry field_raises_type 6, field_entry field_return_type 10, field_entry field_type_parameters 3]),
    (3809, [field_entry field_body 13, field_entry field_body 14, field_entry field_name 2, field_entry field_name 5, field_entry field_parameters 3, field_entry field_parameters 6, field_entry field_return_type 10])]"

definition field_map_entries_31 :: "(nat \<times> TSFieldMapEntry list) list" where "field_map_entries_31 = [

    (3816, [field_entry field_body 13, field_entry field_body 14, field_entry field_name 2, field_entry field_name 5, field_entry field_parameters 3, field_entry field_parameters 6, inherited_entry field_raises_type 7, field_entry field_return_type 10]),
    (3824, [field_entry field_body 13, field_entry field_body 14, field_entry field_name 2, field_entry field_name 5, field_entry field_parameters 3, field_entry field_parameters 6, inherited_entry field_raises_type 7, field_entry field_return_type 11]),
    (3832, [field_entry field_body 14, field_entry field_name 2, field_entry field_name 5, field_entry field_parameters 3, field_entry field_parameters 6, inherited_entry field_raises_type 7, field_entry field_return_type 11]),
    (3839, [field_entry field_body 13, field_entry field_body 14, field_entry field_name 2, field_entry field_name 5, field_entry field_parameters 3, field_entry field_parameters 6, field_entry field_return_type 11]),
    (3846, [field_entry field_body 14, field_entry field_name 2, field_entry field_name 5, field_entry field_parameters 3, field_entry field_parameters 6, field_entry field_return_type 11]),
    (3852, [field_entry field_body 13, field_entry field_body 14, field_entry field_name 2, field_entry field_name 5, field_entry field_parameters 3, field_entry field_parameters 6, inherited_entry field_raises_type 8, field_entry field_return_type 11]),
    (3860, [field_entry field_body 14, field_entry field_name 2, field_entry field_name 5, field_entry field_parameters 3, field_entry field_parameters 6, inherited_entry field_raises_type 8, field_entry field_return_type 11]),
    (3867, [field_entry field_body 13, field_entry field_body 14, field_entry field_name 2, field_entry field_name 5, field_entry field_parameters 3, field_entry field_parameters 6, inherited_entry field_raises_type 8, field_entry field_return_type 10]),
    (3875, [field_entry field_body 14, field_entry field_name 2, field_entry field_name 5, field_entry field_parameters 3, field_entry field_parameters 6, inherited_entry field_raises_type 8, field_entry field_return_type 12]),
    (3882, [field_entry field_body 13, field_entry field_body 14, field_entry field_name 2, field_entry field_name 5, field_entry field_parameters 3, field_entry field_parameters 7, field_entry field_return_type 10, field_entry field_type_parameters 6]),
    (3890, [field_entry field_body 13, field_entry field_body 14, field_entry field_name 2, field_entry field_name 5, field_entry field_parameters 3, field_entry field_parameters 7, field_entry field_return_type 11, field_entry field_type_parameters 6]),
    (3898, [field_entry field_body 14, field_entry field_name 2, field_entry field_name 5, field_entry field_parameters 3, field_entry field_parameters 7, field_entry field_return_type 11, field_entry field_type_parameters 6]),
    (3905, [field_entry field_body 13, field_entry field_body 14, field_entry field_name 2, field_entry field_name 5, field_entry field_parameters 3, field_entry field_parameters 7, inherited_entry field_raises_type 8, field_entry field_return_type 11, field_entry field_type_parameters 6]),
    (3914, [field_entry field_body 14, field_entry field_name 2, field_entry field_name 5, field_entry field_parameters 3, field_entry field_parameters 7, inherited_entry field_raises_type 8, field_entry field_return_type 11, field_entry field_type_parameters 6]),
    (3922, [field_entry field_body 13, field_entry field_body 14, field_entry field_name 2, field_entry field_name 5, field_entry field_parameters 3, field_entry field_parameters 7, inherited_entry field_raises_type 8, field_entry field_return_type 10, field_entry field_type_parameters 6]),
    (3931, [field_entry field_body 14, field_entry field_name 2, field_entry field_name 5, field_entry field_parameters 3, field_entry field_parameters 7, inherited_entry field_raises_type 8, field_entry field_return_type 12, field_entry field_type_parameters 6]),
    (3939, [field_entry field_body 14, field_entry field_name 2, field_entry field_name 5, field_entry field_parameters 3, field_entry field_parameters 7, field_entry field_return_type 12, field_entry field_type_parameters 6])]"

definition field_map_entries_32 :: "(nat \<times> TSFieldMapEntry list) list" where "field_map_entries_32 = [

    (3946, [field_entry field_body 14, field_entry field_name 2, field_entry field_name 5, field_entry field_parameters 3, field_entry field_parameters 7, inherited_entry field_raises_type 9, field_entry field_return_type 12, field_entry field_type_parameters 6]),
    (3954, [field_entry field_body 13, field_entry field_body 14, field_entry field_name 2, field_entry field_name 5, field_entry field_parameters 3, field_entry field_parameters 7, inherited_entry field_raises_type 9, field_entry field_return_type 11, field_entry field_type_parameters 6]),
    (3963, [field_entry field_body 14, field_entry field_name 2, field_entry field_name 5, field_entry field_parameters 3, field_entry field_parameters 7, inherited_entry field_raises_type 9, field_entry field_return_type 11, field_entry field_type_parameters 6]),
    (3971, [field_entry field_body 13, field_entry field_body 14, field_entry field_name 2, field_entry field_name 5, field_entry field_parameters 3, field_entry field_parameters 7, inherited_entry field_raises_type 9, field_entry field_type_parameters 6]),
    (3979, [field_entry field_body 13, field_entry field_body 14, field_entry field_name 2, field_entry field_name 6, field_entry field_parameters 4, field_entry field_parameters 7, field_entry field_return_type 10, field_entry field_type_parameters 3]),
    (3987, [field_entry field_body 13, field_entry field_body 14, field_entry field_name 2, field_entry field_name 6, field_entry field_parameters 4, field_entry field_parameters 7, field_entry field_return_type 11, field_entry field_type_parameters 3]),
    (3995, [field_entry field_body 14, field_entry field_name 2, field_entry field_name 6, field_entry field_parameters 4, field_entry field_parameters 7, field_entry field_return_type 11, field_entry field_type_parameters 3]),
    (4002, [field_entry field_body 13, field_entry field_body 14, field_entry field_name 2, field_entry field_name 6, field_entry field_parameters 4, field_entry field_parameters 7, inherited_entry field_raises_type 8, field_entry field_return_type 11, field_entry field_type_parameters 3]),
    (4011, [field_entry field_body 14, field_entry field_name 2, field_entry field_name 6, field_entry field_parameters 4, field_entry field_parameters 7, inherited_entry field_raises_type 8, field_entry field_return_type 11, field_entry field_type_parameters 3]),
    (4019, [field_entry field_body 13, field_entry field_body 14, field_entry field_name 2, field_entry field_name 6, field_entry field_parameters 4, field_entry field_parameters 7, inherited_entry field_raises_type 8, field_entry field_return_type 10, field_entry field_type_parameters 3]),
    (4028, [field_entry field_body 14, field_entry field_name 2, field_entry field_name 6, field_entry field_parameters 4, field_entry field_parameters 7, inherited_entry field_raises_type 8, field_entry field_return_type 12, field_entry field_type_parameters 3]),
    (4036, [field_entry field_body 14, field_entry field_name 2, field_entry field_name 6, field_entry field_parameters 4, field_entry field_parameters 7, field_entry field_return_type 12, field_entry field_type_parameters 3]),
    (4043, [field_entry field_body 14, field_entry field_name 2, field_entry field_name 6, field_entry field_parameters 4, field_entry field_parameters 7, inherited_entry field_raises_type 9, field_entry field_return_type 12, field_entry field_type_parameters 3]),
    (4051, [field_entry field_body 13, field_entry field_body 14, field_entry field_name 2, field_entry field_name 6, field_entry field_parameters 4, field_entry field_parameters 7, inherited_entry field_raises_type 9, field_entry field_return_type 11, field_entry field_type_parameters 3]),
    (4060, [field_entry field_body 14, field_entry field_name 2, field_entry field_name 6, field_entry field_parameters 4, field_entry field_parameters 7, inherited_entry field_raises_type 9, field_entry field_return_type 11, field_entry field_type_parameters 3]),
    (4068, [field_entry field_body 13, field_entry field_body 14, field_entry field_name 2, field_entry field_name 6, field_entry field_parameters 4, field_entry field_parameters 7, inherited_entry field_raises_type 9, field_entry field_type_parameters 3])]"

definition field_map_entries_33 :: "(nat \<times> TSFieldMapEntry list) list" where "field_map_entries_33 = [

    (4076, [field_entry field_body 13, field_entry field_body 14, field_entry field_name 2, field_entry field_name 6, field_entry field_parameters 4, field_entry field_parameters 8, field_entry field_return_type 11, field_entry field_type_parameters 3, field_entry field_type_parameters 7]),
    (4085, [field_entry field_body 14, field_entry field_name 2, field_entry field_name 6, field_entry field_parameters 4, field_entry field_parameters 8, field_entry field_return_type 11, field_entry field_type_parameters 3, field_entry field_type_parameters 7]),
    (4093, [field_entry field_body 13, field_entry field_body 14, field_entry field_name 2, field_entry field_name 6, field_entry field_parameters 4, field_entry field_parameters 8, field_entry field_return_type 10, field_entry field_type_parameters 3, field_entry field_type_parameters 7]),
    (4102, [field_entry field_body 14, field_entry field_name 2, field_entry field_name 6, field_entry field_parameters 4, field_entry field_parameters 8, field_entry field_return_type 12, field_entry field_type_parameters 3, field_entry field_type_parameters 7]),
    (4110, [field_entry field_body 14, field_entry field_name 2, field_entry field_name 6, field_entry field_parameters 4, field_entry field_parameters 8, inherited_entry field_raises_type 9, field_entry field_return_type 12, field_entry field_type_parameters 3, field_entry field_type_parameters 7]),
    (4119, [field_entry field_body 13, field_entry field_body 14, field_entry field_name 2, field_entry field_name 6, field_entry field_parameters 4, field_entry field_parameters 8, inherited_entry field_raises_type 9, field_entry field_return_type 11, field_entry field_type_parameters 3, field_entry field_type_parameters 7]),
    (4129, [field_entry field_body 14, field_entry field_name 2, field_entry field_name 6, field_entry field_parameters 4, field_entry field_parameters 8, inherited_entry field_raises_type 9, field_entry field_return_type 11, field_entry field_type_parameters 3, field_entry field_type_parameters 7]),
    (4138, [field_entry field_body 13, field_entry field_body 14, field_entry field_name 2, field_entry field_name 6, field_entry field_parameters 4, field_entry field_parameters 8, inherited_entry field_raises_type 9, field_entry field_type_parameters 3, field_entry field_type_parameters 7]),
    (4147, [field_entry field_body 13, field_entry field_body 14, field_entry field_name 2, field_entry field_name 6, field_entry field_parameters 4, field_entry field_parameters 8, field_entry field_type_parameters 3, field_entry field_type_parameters 7]),
    (4155, [field_entry field_body 14, field_entry field_name 2, field_entry field_name 6, field_entry field_parameters 4, field_entry field_parameters 8, inherited_entry field_raises_type 10, field_entry field_return_type 12, field_entry field_type_parameters 3, field_entry field_type_parameters 7]),
    (4164, [field_entry field_body 13, field_entry field_body 14, field_entry field_name 2, field_entry field_name 6, field_entry field_parameters 4, field_entry field_parameters 8, inherited_entry field_raises_type 10, field_entry field_type_parameters 3, field_entry field_type_parameters 7]),
    (4173, [field_entry field_body 14, field_entry field_name 2, field_entry field_name 6, field_entry field_parameters 4, field_entry field_parameters 8, inherited_entry field_raises_type 10, field_entry field_type_parameters 3, field_entry field_type_parameters 7]),
    (4181, [field_entry field_body 14, field_entry field_body 15, field_entry field_name 3, field_entry field_name 6, field_entry field_parameters 4, field_entry field_parameters 7, field_entry field_return_type 11]),
    (4188, [field_entry field_body 14, field_entry field_body 15, field_entry field_name 3, field_entry field_name 6, field_entry field_parameters 4, field_entry field_parameters 7, inherited_entry field_raises_type 8, field_entry field_return_type 11]),
    (4196, [field_entry field_body 14, field_entry field_body 15, field_entry field_name 3, field_entry field_name 6, field_entry field_parameters 4, field_entry field_parameters 7, inherited_entry field_raises_type 8, field_entry field_return_type 12])]"

definition field_map_entries_34 :: "(nat \<times> TSFieldMapEntry list) list" where "field_map_entries_34 = [

    (4204, [field_entry field_body 15, field_entry field_name 3, field_entry field_name 6, field_entry field_parameters 4, field_entry field_parameters 7, inherited_entry field_raises_type 8, field_entry field_return_type 12]),
    (4211, [field_entry field_body 14, field_entry field_body 15, field_entry field_name 3, field_entry field_name 6, field_entry field_parameters 4, field_entry field_parameters 7, field_entry field_return_type 12]),
    (4218, [field_entry field_body 15, field_entry field_name 3, field_entry field_name 6, field_entry field_parameters 4, field_entry field_parameters 7, field_entry field_return_type 12]),
    (4224, [field_entry field_body 14, field_entry field_body 15, field_entry field_name 3, field_entry field_name 6, field_entry field_parameters 4, field_entry field_parameters 7, inherited_entry field_raises_type 9, field_entry field_return_type 12]),
    (4232, [field_entry field_body 15, field_entry field_name 3, field_entry field_name 6, field_entry field_parameters 4, field_entry field_parameters 7, inherited_entry field_raises_type 9, field_entry field_return_type 12]),
    (4239, [field_entry field_body 14, field_entry field_body 15, field_entry field_name 3, field_entry field_name 6, field_entry field_parameters 4, field_entry field_parameters 7, inherited_entry field_raises_type 9, field_entry field_return_type 11]),
    (4247, [field_entry field_body 15, field_entry field_name 3, field_entry field_name 6, field_entry field_parameters 4, field_entry field_parameters 7, inherited_entry field_raises_type 9, field_entry field_return_type 13]),
    (4254, [field_entry field_body 14, field_entry field_body 15, field_entry field_name 3, field_entry field_name 6, field_entry field_parameters 4, field_entry field_parameters 8, field_entry field_return_type 11, field_entry field_type_parameters 7]),
    (4262, [field_entry field_body 14, field_entry field_body 15, field_entry field_name 3, field_entry field_name 6, field_entry field_parameters 4, field_entry field_parameters 8, field_entry field_return_type 12, field_entry field_type_parameters 7]),
    (4270, [field_entry field_body 15, field_entry field_name 3, field_entry field_name 6, field_entry field_parameters 4, field_entry field_parameters 8, field_entry field_return_type 12, field_entry field_type_parameters 7]),
    (4277, [field_entry field_body 14, field_entry field_body 15, field_entry field_name 3, field_entry field_name 6, field_entry field_parameters 4, field_entry field_parameters 8, inherited_entry field_raises_type 9, field_entry field_return_type 12, field_entry field_type_parameters 7]),
    (4286, [field_entry field_body 15, field_entry field_name 3, field_entry field_name 6, field_entry field_parameters 4, field_entry field_parameters 8, inherited_entry field_raises_type 9, field_entry field_return_type 12, field_entry field_type_parameters 7]),
    (4294, [field_entry field_body 14, field_entry field_body 15, field_entry field_name 3, field_entry field_name 6, field_entry field_parameters 4, field_entry field_parameters 8, inherited_entry field_raises_type 9, field_entry field_return_type 11, field_entry field_type_parameters 7]),
    (4303, [field_entry field_body 15, field_entry field_name 3, field_entry field_name 6, field_entry field_parameters 4, field_entry field_parameters 8, inherited_entry field_raises_type 9, field_entry field_return_type 13, field_entry field_type_parameters 7]),
    (4311, [field_entry field_body 15, field_entry field_name 3, field_entry field_name 6, field_entry field_parameters 4, field_entry field_parameters 8, field_entry field_return_type 13, field_entry field_type_parameters 7]),
    (4318, [field_entry field_body 15, field_entry field_name 3, field_entry field_name 6, field_entry field_parameters 4, field_entry field_parameters 8, inherited_entry field_raises_type 10, field_entry field_return_type 13, field_entry field_type_parameters 7]),
    (4326, [field_entry field_body 14, field_entry field_body 15, field_entry field_name 3, field_entry field_name 6, field_entry field_parameters 4, field_entry field_parameters 8, inherited_entry field_raises_type 10, field_entry field_return_type 12, field_entry field_type_parameters 7])]"

definition field_map_entries_35 :: "(nat \<times> TSFieldMapEntry list) list" where "field_map_entries_35 = [

    (4335, [field_entry field_body 15, field_entry field_name 3, field_entry field_name 6, field_entry field_parameters 4, field_entry field_parameters 8, inherited_entry field_raises_type 10, field_entry field_return_type 12, field_entry field_type_parameters 7]),
    (4343, [field_entry field_body 14, field_entry field_body 15, field_entry field_name 3, field_entry field_name 6, field_entry field_parameters 4, field_entry field_parameters 8, inherited_entry field_raises_type 10, field_entry field_type_parameters 7]),
    (4351, [field_entry field_body 14, field_entry field_body 15, field_entry field_name 3, field_entry field_name 7, field_entry field_parameters 5, field_entry field_parameters 8, field_entry field_return_type 11, field_entry field_type_parameters 4]),
    (4359, [field_entry field_body 14, field_entry field_body 15, field_entry field_name 3, field_entry field_name 7, field_entry field_parameters 5, field_entry field_parameters 8, field_entry field_return_type 12, field_entry field_type_parameters 4]),
    (4367, [field_entry field_body 15, field_entry field_name 3, field_entry field_name 7, field_entry field_parameters 5, field_entry field_parameters 8, field_entry field_return_type 12, field_entry field_type_parameters 4]),
    (4374, [field_entry field_body 14, field_entry field_body 15, field_entry field_name 3, field_entry field_name 7, field_entry field_parameters 5, field_entry field_parameters 8, inherited_entry field_raises_type 9, field_entry field_return_type 12, field_entry field_type_parameters 4]),
    (4383, [field_entry field_body 15, field_entry field_name 3, field_entry field_name 7, field_entry field_parameters 5, field_entry field_parameters 8, inherited_entry field_raises_type 9, field_entry field_return_type 12, field_entry field_type_parameters 4]),
    (4391, [field_entry field_body 14, field_entry field_body 15, field_entry field_name 3, field_entry field_name 7, field_entry field_parameters 5, field_entry field_parameters 8, inherited_entry field_raises_type 9, field_entry field_return_type 11, field_entry field_type_parameters 4]),
    (4400, [field_entry field_body 15, field_entry field_name 3, field_entry field_name 7, field_entry field_parameters 5, field_entry field_parameters 8, inherited_entry field_raises_type 9, field_entry field_return_type 13, field_entry field_type_parameters 4]),
    (4408, [field_entry field_body 15, field_entry field_name 3, field_entry field_name 7, field_entry field_parameters 5, field_entry field_parameters 8, field_entry field_return_type 13, field_entry field_type_parameters 4]),
    (4415, [field_entry field_body 15, field_entry field_name 3, field_entry field_name 7, field_entry field_parameters 5, field_entry field_parameters 8, inherited_entry field_raises_type 10, field_entry field_return_type 13, field_entry field_type_parameters 4]),
    (4423, [field_entry field_body 14, field_entry field_body 15, field_entry field_name 3, field_entry field_name 7, field_entry field_parameters 5, field_entry field_parameters 8, inherited_entry field_raises_type 10, field_entry field_return_type 12, field_entry field_type_parameters 4]),
    (4432, [field_entry field_body 15, field_entry field_name 3, field_entry field_name 7, field_entry field_parameters 5, field_entry field_parameters 8, inherited_entry field_raises_type 10, field_entry field_return_type 12, field_entry field_type_parameters 4]),
    (4440, [field_entry field_body 14, field_entry field_body 15, field_entry field_name 3, field_entry field_name 7, field_entry field_parameters 5, field_entry field_parameters 8, inherited_entry field_raises_type 10, field_entry field_type_parameters 4]),
    (4448, [field_entry field_body 14, field_entry field_body 15, field_entry field_name 3, field_entry field_name 7, field_entry field_parameters 5, field_entry field_parameters 9, field_entry field_return_type 12, field_entry field_type_parameters 4, field_entry field_type_parameters 8]),
    (4457, [field_entry field_body 15, field_entry field_name 3, field_entry field_name 7, field_entry field_parameters 5, field_entry field_parameters 9, field_entry field_return_type 12, field_entry field_type_parameters 4, field_entry field_type_parameters 8])]"

definition field_map_entries_36 :: "(nat \<times> TSFieldMapEntry list) list" where "field_map_entries_36 = [

    (4465, [field_entry field_body 14, field_entry field_body 15, field_entry field_name 3, field_entry field_name 7, field_entry field_parameters 5, field_entry field_parameters 9, field_entry field_return_type 11, field_entry field_type_parameters 4, field_entry field_type_parameters 8]),
    (4474, [field_entry field_body 15, field_entry field_name 3, field_entry field_name 7, field_entry field_parameters 5, field_entry field_parameters 9, field_entry field_return_type 13, field_entry field_type_parameters 4, field_entry field_type_parameters 8]),
    (4482, [field_entry field_body 15, field_entry field_name 3, field_entry field_name 7, field_entry field_parameters 5, field_entry field_parameters 9, inherited_entry field_raises_type 10, field_entry field_return_type 13, field_entry field_type_parameters 4, field_entry field_type_parameters 8]),
    (4491, [field_entry field_body 14, field_entry field_body 15, field_entry field_name 3, field_entry field_name 7, field_entry field_parameters 5, field_entry field_parameters 9, inherited_entry field_raises_type 10, field_entry field_return_type 12, field_entry field_type_parameters 4, field_entry field_type_parameters 8]),
    (4501, [field_entry field_body 15, field_entry field_name 3, field_entry field_name 7, field_entry field_parameters 5, field_entry field_parameters 9, inherited_entry field_raises_type 10, field_entry field_return_type 12, field_entry field_type_parameters 4, field_entry field_type_parameters 8]),
    (4510, [field_entry field_body 14, field_entry field_body 15, field_entry field_name 3, field_entry field_name 7, field_entry field_parameters 5, field_entry field_parameters 9, inherited_entry field_raises_type 10, field_entry field_type_parameters 4, field_entry field_type_parameters 8]),
    (4519, [field_entry field_body 14, field_entry field_body 15, field_entry field_name 3, field_entry field_name 7, field_entry field_parameters 5, field_entry field_parameters 9, field_entry field_type_parameters 4, field_entry field_type_parameters 8]),
    (4527, [field_entry field_body 15, field_entry field_name 3, field_entry field_name 7, field_entry field_parameters 5, field_entry field_parameters 9, inherited_entry field_raises_type 11, field_entry field_return_type 13, field_entry field_type_parameters 4, field_entry field_type_parameters 8]),
    (4536, [field_entry field_body 14, field_entry field_body 15, field_entry field_name 3, field_entry field_name 7, field_entry field_parameters 5, field_entry field_parameters 9, inherited_entry field_raises_type 11, field_entry field_type_parameters 4, field_entry field_type_parameters 8]),
    (4545, [field_entry field_body 15, field_entry field_name 3, field_entry field_name 7, field_entry field_parameters 5, field_entry field_parameters 9, inherited_entry field_raises_type 11, field_entry field_type_parameters 4, field_entry field_type_parameters 8]),
    (4553, [field_entry field_body 14, field_entry field_body 15, field_entry field_name 2, field_entry field_name 5, field_entry field_parameters 3, field_entry field_parameters 6, inherited_entry field_raises_type 7, field_entry field_return_type 11]),
    (4561, [field_entry field_body 14, field_entry field_body 15, field_entry field_name 2, field_entry field_name 5, field_entry field_parameters 3, field_entry field_parameters 6, field_entry field_return_type 11]),
    (4568, [field_entry field_body 14, field_entry field_body 15, field_entry field_name 2, field_entry field_name 5, field_entry field_parameters 3, field_entry field_parameters 6, inherited_entry field_raises_type 8, field_entry field_return_type 11]),
    (4576, [field_entry field_body 14, field_entry field_body 15, field_entry field_name 2, field_entry field_name 5, field_entry field_parameters 3, field_entry field_parameters 6, inherited_entry field_raises_type 8, field_entry field_return_type 12]),
    (4584, [field_entry field_body 15, field_entry field_name 2, field_entry field_name 5, field_entry field_parameters 3, field_entry field_parameters 6, inherited_entry field_raises_type 8, field_entry field_return_type 12]),
    (4591, [field_entry field_body 14, field_entry field_body 15, field_entry field_name 2, field_entry field_name 5, field_entry field_parameters 3, field_entry field_parameters 7, field_entry field_return_type 11, field_entry field_type_parameters 6])]"

definition field_map_entries_37 :: "(nat \<times> TSFieldMapEntry list) list" where "field_map_entries_37 = [

    (4599, [field_entry field_body 14, field_entry field_body 15, field_entry field_name 2, field_entry field_name 5, field_entry field_parameters 3, field_entry field_parameters 7, inherited_entry field_raises_type 8, field_entry field_return_type 11, field_entry field_type_parameters 6]),
    (4608, [field_entry field_body 14, field_entry field_body 15, field_entry field_name 2, field_entry field_name 5, field_entry field_parameters 3, field_entry field_parameters 7, inherited_entry field_raises_type 8, field_entry field_return_type 12, field_entry field_type_parameters 6]),
    (4617, [field_entry field_body 15, field_entry field_name 2, field_entry field_name 5, field_entry field_parameters 3, field_entry field_parameters 7, inherited_entry field_raises_type 8, field_entry field_return_type 12, field_entry field_type_parameters 6]),
    (4625, [field_entry field_body 14, field_entry field_body 15, field_entry field_name 2, field_entry field_name 5, field_entry field_parameters 3, field_entry field_parameters 7, field_entry field_return_type 12, field_entry field_type_parameters 6]),
    (4633, [field_entry field_body 15, field_entry field_name 2, field_entry field_name 5, field_entry field_parameters 3, field_entry field_parameters 7, field_entry field_return_type 12, field_entry field_type_parameters 6]),
    (4640, [field_entry field_body 14, field_entry field_body 15, field_entry field_name 2, field_entry field_name 5, field_entry field_parameters 3, field_entry field_parameters 7, inherited_entry field_raises_type 9, field_entry field_return_type 12, field_entry field_type_parameters 6]),
    (4649, [field_entry field_body 15, field_entry field_name 2, field_entry field_name 5, field_entry field_parameters 3, field_entry field_parameters 7, inherited_entry field_raises_type 9, field_entry field_return_type 12, field_entry field_type_parameters 6]),
    (4657, [field_entry field_body 14, field_entry field_body 15, field_entry field_name 2, field_entry field_name 5, field_entry field_parameters 3, field_entry field_parameters 7, inherited_entry field_raises_type 9, field_entry field_return_type 11, field_entry field_type_parameters 6]),
    (4666, [field_entry field_body 15, field_entry field_name 2, field_entry field_name 5, field_entry field_parameters 3, field_entry field_parameters 7, inherited_entry field_raises_type 9, field_entry field_return_type 13, field_entry field_type_parameters 6]),
    (4674, [field_entry field_body 14, field_entry field_body 15, field_entry field_name 2, field_entry field_name 6, field_entry field_parameters 4, field_entry field_parameters 7, field_entry field_return_type 11, field_entry field_type_parameters 3]),
    (4682, [field_entry field_body 14, field_entry field_body 15, field_entry field_name 2, field_entry field_name 6, field_entry field_parameters 4, field_entry field_parameters 7, inherited_entry field_raises_type 8, field_entry field_return_type 11, field_entry field_type_parameters 3]),
    (4691, [field_entry field_body 14, field_entry field_body 15, field_entry field_name 2, field_entry field_name 6, field_entry field_parameters 4, field_entry field_parameters 7, inherited_entry field_raises_type 8, field_entry field_return_type 12, field_entry field_type_parameters 3]),
    (4700, [field_entry field_body 15, field_entry field_name 2, field_entry field_name 6, field_entry field_parameters 4, field_entry field_parameters 7, inherited_entry field_raises_type 8, field_entry field_return_type 12, field_entry field_type_parameters 3]),
    (4708, [field_entry field_body 14, field_entry field_body 15, field_entry field_name 2, field_entry field_name 6, field_entry field_parameters 4, field_entry field_parameters 7, field_entry field_return_type 12, field_entry field_type_parameters 3]),
    (4716, [field_entry field_body 15, field_entry field_name 2, field_entry field_name 6, field_entry field_parameters 4, field_entry field_parameters 7, field_entry field_return_type 12, field_entry field_type_parameters 3]),
    (4723, [field_entry field_body 14, field_entry field_body 15, field_entry field_name 2, field_entry field_name 6, field_entry field_parameters 4, field_entry field_parameters 7, inherited_entry field_raises_type 9, field_entry field_return_type 12, field_entry field_type_parameters 3])]"

definition field_map_entries_38 :: "(nat \<times> TSFieldMapEntry list) list" where "field_map_entries_38 = [

    (4732, [field_entry field_body 15, field_entry field_name 2, field_entry field_name 6, field_entry field_parameters 4, field_entry field_parameters 7, inherited_entry field_raises_type 9, field_entry field_return_type 12, field_entry field_type_parameters 3]),
    (4740, [field_entry field_body 14, field_entry field_body 15, field_entry field_name 2, field_entry field_name 6, field_entry field_parameters 4, field_entry field_parameters 7, inherited_entry field_raises_type 9, field_entry field_return_type 11, field_entry field_type_parameters 3]),
    (4749, [field_entry field_body 15, field_entry field_name 2, field_entry field_name 6, field_entry field_parameters 4, field_entry field_parameters 7, inherited_entry field_raises_type 9, field_entry field_return_type 13, field_entry field_type_parameters 3]),
    (4757, [field_entry field_body 14, field_entry field_body 15, field_entry field_name 2, field_entry field_name 6, field_entry field_parameters 4, field_entry field_parameters 8, field_entry field_return_type 11, field_entry field_type_parameters 3, field_entry field_type_parameters 7]),
    (4766, [field_entry field_body 14, field_entry field_body 15, field_entry field_name 2, field_entry field_name 6, field_entry field_parameters 4, field_entry field_parameters 8, field_entry field_return_type 12, field_entry field_type_parameters 3, field_entry field_type_parameters 7]),
    (4775, [field_entry field_body 15, field_entry field_name 2, field_entry field_name 6, field_entry field_parameters 4, field_entry field_parameters 8, field_entry field_return_type 12, field_entry field_type_parameters 3, field_entry field_type_parameters 7]),
    (4783, [field_entry field_body 14, field_entry field_body 15, field_entry field_name 2, field_entry field_name 6, field_entry field_parameters 4, field_entry field_parameters 8, inherited_entry field_raises_type 9, field_entry field_return_type 12, field_entry field_type_parameters 3, field_entry field_type_parameters 7]),
    (4793, [field_entry field_body 15, field_entry field_name 2, field_entry field_name 6, field_entry field_parameters 4, field_entry field_parameters 8, inherited_entry field_raises_type 9, field_entry field_return_type 12, field_entry field_type_parameters 3, field_entry field_type_parameters 7]),
    (4802, [field_entry field_body 14, field_entry field_body 15, field_entry field_name 2, field_entry field_name 6, field_entry field_parameters 4, field_entry field_parameters 8, inherited_entry field_raises_type 9, field_entry field_return_type 11, field_entry field_type_parameters 3, field_entry field_type_parameters 7]),
    (4812, [field_entry field_body 15, field_entry field_name 2, field_entry field_name 6, field_entry field_parameters 4, field_entry field_parameters 8, inherited_entry field_raises_type 9, field_entry field_return_type 13, field_entry field_type_parameters 3, field_entry field_type_parameters 7]),
    (4821, [field_entry field_body 15, field_entry field_name 2, field_entry field_name 6, field_entry field_parameters 4, field_entry field_parameters 8, field_entry field_return_type 13, field_entry field_type_parameters 3, field_entry field_type_parameters 7]),
    (4829, [field_entry field_body 15, field_entry field_name 2, field_entry field_name 6, field_entry field_parameters 4, field_entry field_parameters 8, inherited_entry field_raises_type 10, field_entry field_return_type 13, field_entry field_type_parameters 3, field_entry field_type_parameters 7]),
    (4838, [field_entry field_body 14, field_entry field_body 15, field_entry field_name 2, field_entry field_name 6, field_entry field_parameters 4, field_entry field_parameters 8, inherited_entry field_raises_type 10, field_entry field_return_type 12, field_entry field_type_parameters 3, field_entry field_type_parameters 7]),
    (4848, [field_entry field_body 15, field_entry field_name 2, field_entry field_name 6, field_entry field_parameters 4, field_entry field_parameters 8, inherited_entry field_raises_type 10, field_entry field_return_type 12, field_entry field_type_parameters 3, field_entry field_type_parameters 7]),
    (4857, [field_entry field_body 14, field_entry field_body 15, field_entry field_name 2, field_entry field_name 6, field_entry field_parameters 4, field_entry field_parameters 8, inherited_entry field_raises_type 10, field_entry field_type_parameters 3, field_entry field_type_parameters 7])]"

definition field_map_entries_39 :: "(nat \<times> TSFieldMapEntry list) list" where "field_map_entries_39 = [

    (4866, [field_entry field_body 15, field_entry field_body 16, field_entry field_name 3, field_entry field_name 6, field_entry field_parameters 4, field_entry field_parameters 7, inherited_entry field_raises_type 8, field_entry field_return_type 12]),
    (4874, [field_entry field_body 15, field_entry field_body 16, field_entry field_name 3, field_entry field_name 6, field_entry field_parameters 4, field_entry field_parameters 7, field_entry field_return_type 12]),
    (4881, [field_entry field_body 15, field_entry field_body 16, field_entry field_name 3, field_entry field_name 6, field_entry field_parameters 4, field_entry field_parameters 7, inherited_entry field_raises_type 9, field_entry field_return_type 12]),
    (4889, [field_entry field_body 15, field_entry field_body 16, field_entry field_name 3, field_entry field_name 6, field_entry field_parameters 4, field_entry field_parameters 7, inherited_entry field_raises_type 9, field_entry field_return_type 13]),
    (4897, [field_entry field_body 16, field_entry field_name 3, field_entry field_name 6, field_entry field_parameters 4, field_entry field_parameters 7, inherited_entry field_raises_type 9, field_entry field_return_type 13]),
    (4904, [field_entry field_body 15, field_entry field_body 16, field_entry field_name 3, field_entry field_name 6, field_entry field_parameters 4, field_entry field_parameters 8, field_entry field_return_type 12, field_entry field_type_parameters 7]),
    (4912, [field_entry field_body 15, field_entry field_body 16, field_entry field_name 3, field_entry field_name 6, field_entry field_parameters 4, field_entry field_parameters 8, inherited_entry field_raises_type 9, field_entry field_return_type 12, field_entry field_type_parameters 7]),
    (4921, [field_entry field_body 15, field_entry field_body 16, field_entry field_name 3, field_entry field_name 6, field_entry field_parameters 4, field_entry field_parameters 8, inherited_entry field_raises_type 9, field_entry field_return_type 13, field_entry field_type_parameters 7]),
    (4930, [field_entry field_body 16, field_entry field_name 3, field_entry field_name 6, field_entry field_parameters 4, field_entry field_parameters 8, inherited_entry field_raises_type 9, field_entry field_return_type 13, field_entry field_type_parameters 7]),
    (4938, [field_entry field_body 15, field_entry field_body 16, field_entry field_name 3, field_entry field_name 6, field_entry field_parameters 4, field_entry field_parameters 8, field_entry field_return_type 13, field_entry field_type_parameters 7]),
    (4946, [field_entry field_body 16, field_entry field_name 3, field_entry field_name 6, field_entry field_parameters 4, field_entry field_parameters 8, field_entry field_return_type 13, field_entry field_type_parameters 7]),
    (4953, [field_entry field_body 15, field_entry field_body 16, field_entry field_name 3, field_entry field_name 6, field_entry field_parameters 4, field_entry field_parameters 8, inherited_entry field_raises_type 10, field_entry field_return_type 13, field_entry field_type_parameters 7]),
    (4962, [field_entry field_body 16, field_entry field_name 3, field_entry field_name 6, field_entry field_parameters 4, field_entry field_parameters 8, inherited_entry field_raises_type 10, field_entry field_return_type 13, field_entry field_type_parameters 7]),
    (4970, [field_entry field_body 15, field_entry field_body 16, field_entry field_name 3, field_entry field_name 6, field_entry field_parameters 4, field_entry field_parameters 8, inherited_entry field_raises_type 10, field_entry field_return_type 12, field_entry field_type_parameters 7]),
    (4979, [field_entry field_body 16, field_entry field_name 3, field_entry field_name 6, field_entry field_parameters 4, field_entry field_parameters 8, inherited_entry field_raises_type 10, field_entry field_return_type 14, field_entry field_type_parameters 7]),
    (4987, [field_entry field_body 15, field_entry field_body 16, field_entry field_name 3, field_entry field_name 7, field_entry field_parameters 5, field_entry field_parameters 8, field_entry field_return_type 12, field_entry field_type_parameters 4])]"

definition field_map_entries_40 :: "(nat \<times> TSFieldMapEntry list) list" where "field_map_entries_40 = [

    (4995, [field_entry field_body 15, field_entry field_body 16, field_entry field_name 3, field_entry field_name 7, field_entry field_parameters 5, field_entry field_parameters 8, inherited_entry field_raises_type 9, field_entry field_return_type 12, field_entry field_type_parameters 4]),
    (5004, [field_entry field_body 15, field_entry field_body 16, field_entry field_name 3, field_entry field_name 7, field_entry field_parameters 5, field_entry field_parameters 8, inherited_entry field_raises_type 9, field_entry field_return_type 13, field_entry field_type_parameters 4]),
    (5013, [field_entry field_body 16, field_entry field_name 3, field_entry field_name 7, field_entry field_parameters 5, field_entry field_parameters 8, inherited_entry field_raises_type 9, field_entry field_return_type 13, field_entry field_type_parameters 4]),
    (5021, [field_entry field_body 15, field_entry field_body 16, field_entry field_name 3, field_entry field_name 7, field_entry field_parameters 5, field_entry field_parameters 8, field_entry field_return_type 13, field_entry field_type_parameters 4]),
    (5029, [field_entry field_body 16, field_entry field_name 3, field_entry field_name 7, field_entry field_parameters 5, field_entry field_parameters 8, field_entry field_return_type 13, field_entry field_type_parameters 4]),
    (5036, [field_entry field_body 15, field_entry field_body 16, field_entry field_name 3, field_entry field_name 7, field_entry field_parameters 5, field_entry field_parameters 8, inherited_entry field_raises_type 10, field_entry field_return_type 13, field_entry field_type_parameters 4]),
    (5045, [field_entry field_body 16, field_entry field_name 3, field_entry field_name 7, field_entry field_parameters 5, field_entry field_parameters 8, inherited_entry field_raises_type 10, field_entry field_return_type 13, field_entry field_type_parameters 4]),
    (5053, [field_entry field_body 15, field_entry field_body 16, field_entry field_name 3, field_entry field_name 7, field_entry field_parameters 5, field_entry field_parameters 8, inherited_entry field_raises_type 10, field_entry field_return_type 12, field_entry field_type_parameters 4]),
    (5062, [field_entry field_body 16, field_entry field_name 3, field_entry field_name 7, field_entry field_parameters 5, field_entry field_parameters 8, inherited_entry field_raises_type 10, field_entry field_return_type 14, field_entry field_type_parameters 4]),
    (5070, [field_entry field_body 15, field_entry field_body 16, field_entry field_name 3, field_entry field_name 7, field_entry field_parameters 5, field_entry field_parameters 9, field_entry field_return_type 12, field_entry field_type_parameters 4, field_entry field_type_parameters 8]),
    (5079, [field_entry field_body 15, field_entry field_body 16, field_entry field_name 3, field_entry field_name 7, field_entry field_parameters 5, field_entry field_parameters 9, field_entry field_return_type 13, field_entry field_type_parameters 4, field_entry field_type_parameters 8]),
    (5088, [field_entry field_body 16, field_entry field_name 3, field_entry field_name 7, field_entry field_parameters 5, field_entry field_parameters 9, field_entry field_return_type 13, field_entry field_type_parameters 4, field_entry field_type_parameters 8]),
    (5096, [field_entry field_body 15, field_entry field_body 16, field_entry field_name 3, field_entry field_name 7, field_entry field_parameters 5, field_entry field_parameters 9, inherited_entry field_raises_type 10, field_entry field_return_type 13, field_entry field_type_parameters 4, field_entry field_type_parameters 8]),
    (5106, [field_entry field_body 16, field_entry field_name 3, field_entry field_name 7, field_entry field_parameters 5, field_entry field_parameters 9, inherited_entry field_raises_type 10, field_entry field_return_type 13, field_entry field_type_parameters 4, field_entry field_type_parameters 8]),
    (5115, [field_entry field_body 15, field_entry field_body 16, field_entry field_name 3, field_entry field_name 7, field_entry field_parameters 5, field_entry field_parameters 9, inherited_entry field_raises_type 10, field_entry field_return_type 12, field_entry field_type_parameters 4, field_entry field_type_parameters 8])]"

definition field_map_entries_41 :: "(nat \<times> TSFieldMapEntry list) list" where "field_map_entries_41 = [

    (5125, [field_entry field_body 16, field_entry field_name 3, field_entry field_name 7, field_entry field_parameters 5, field_entry field_parameters 9, inherited_entry field_raises_type 10, field_entry field_return_type 14, field_entry field_type_parameters 4, field_entry field_type_parameters 8]),
    (5134, [field_entry field_body 16, field_entry field_name 3, field_entry field_name 7, field_entry field_parameters 5, field_entry field_parameters 9, field_entry field_return_type 14, field_entry field_type_parameters 4, field_entry field_type_parameters 8]),
    (5142, [field_entry field_body 16, field_entry field_name 3, field_entry field_name 7, field_entry field_parameters 5, field_entry field_parameters 9, inherited_entry field_raises_type 11, field_entry field_return_type 14, field_entry field_type_parameters 4, field_entry field_type_parameters 8]),
    (5151, [field_entry field_body 15, field_entry field_body 16, field_entry field_name 3, field_entry field_name 7, field_entry field_parameters 5, field_entry field_parameters 9, inherited_entry field_raises_type 11, field_entry field_return_type 13, field_entry field_type_parameters 4, field_entry field_type_parameters 8]),
    (5161, [field_entry field_body 16, field_entry field_name 3, field_entry field_name 7, field_entry field_parameters 5, field_entry field_parameters 9, inherited_entry field_raises_type 11, field_entry field_return_type 13, field_entry field_type_parameters 4, field_entry field_type_parameters 8]),
    (5170, [field_entry field_body 15, field_entry field_body 16, field_entry field_name 3, field_entry field_name 7, field_entry field_parameters 5, field_entry field_parameters 9, inherited_entry field_raises_type 11, field_entry field_type_parameters 4, field_entry field_type_parameters 8]),
    (5179, [field_entry field_body 15, field_entry field_body 16, field_entry field_name 2, field_entry field_name 5, field_entry field_parameters 3, field_entry field_parameters 6, inherited_entry field_raises_type 8, field_entry field_return_type 12]),
    (5187, [field_entry field_body 15, field_entry field_body 16, field_entry field_name 2, field_entry field_name 5, field_entry field_parameters 3, field_entry field_parameters 7, inherited_entry field_raises_type 8, field_entry field_return_type 12, field_entry field_type_parameters 6]),
    (5196, [field_entry field_body 15, field_entry field_body 16, field_entry field_name 2, field_entry field_name 5, field_entry field_parameters 3, field_entry field_parameters 7, field_entry field_return_type 12, field_entry field_type_parameters 6]),
    (5204, [field_entry field_body 15, field_entry field_body 16, field_entry field_name 2, field_entry field_name 5, field_entry field_parameters 3, field_entry field_parameters 7, inherited_entry field_raises_type 9, field_entry field_return_type 12, field_entry field_type_parameters 6]),
    (5213, [field_entry field_body 15, field_entry field_body 16, field_entry field_name 2, field_entry field_name 5, field_entry field_parameters 3, field_entry field_parameters 7, inherited_entry field_raises_type 9, field_entry field_return_type 13, field_entry field_type_parameters 6]),
    (5222, [field_entry field_body 16, field_entry field_name 2, field_entry field_name 5, field_entry field_parameters 3, field_entry field_parameters 7, inherited_entry field_raises_type 9, field_entry field_return_type 13, field_entry field_type_parameters 6]),
    (5230, [field_entry field_body 15, field_entry field_body 16, field_entry field_name 2, field_entry field_name 6, field_entry field_parameters 4, field_entry field_parameters 7, inherited_entry field_raises_type 8, field_entry field_return_type 12, field_entry field_type_parameters 3]),
    (5239, [field_entry field_body 15, field_entry field_body 16, field_entry field_name 2, field_entry field_name 6, field_entry field_parameters 4, field_entry field_parameters 7, field_entry field_return_type 12, field_entry field_type_parameters 3]),
    (5247, [field_entry field_body 15, field_entry field_body 16, field_entry field_name 2, field_entry field_name 6, field_entry field_parameters 4, field_entry field_parameters 7, inherited_entry field_raises_type 9, field_entry field_return_type 12, field_entry field_type_parameters 3])]"

definition field_map_entries_42 :: "(nat \<times> TSFieldMapEntry list) list" where "field_map_entries_42 = [

    (5256, [field_entry field_body 15, field_entry field_body 16, field_entry field_name 2, field_entry field_name 6, field_entry field_parameters 4, field_entry field_parameters 7, inherited_entry field_raises_type 9, field_entry field_return_type 13, field_entry field_type_parameters 3]),
    (5265, [field_entry field_body 16, field_entry field_name 2, field_entry field_name 6, field_entry field_parameters 4, field_entry field_parameters 7, inherited_entry field_raises_type 9, field_entry field_return_type 13, field_entry field_type_parameters 3]),
    (5273, [field_entry field_body 15, field_entry field_body 16, field_entry field_name 2, field_entry field_name 6, field_entry field_parameters 4, field_entry field_parameters 8, field_entry field_return_type 12, field_entry field_type_parameters 3, field_entry field_type_parameters 7]),
    (5282, [field_entry field_body 15, field_entry field_body 16, field_entry field_name 2, field_entry field_name 6, field_entry field_parameters 4, field_entry field_parameters 8, inherited_entry field_raises_type 9, field_entry field_return_type 12, field_entry field_type_parameters 3, field_entry field_type_parameters 7]),
    (5292, [field_entry field_body 15, field_entry field_body 16, field_entry field_name 2, field_entry field_name 6, field_entry field_parameters 4, field_entry field_parameters 8, inherited_entry field_raises_type 9, field_entry field_return_type 13, field_entry field_type_parameters 3, field_entry field_type_parameters 7]),
    (5302, [field_entry field_body 16, field_entry field_name 2, field_entry field_name 6, field_entry field_parameters 4, field_entry field_parameters 8, inherited_entry field_raises_type 9, field_entry field_return_type 13, field_entry field_type_parameters 3, field_entry field_type_parameters 7]),
    (5311, [field_entry field_body 15, field_entry field_body 16, field_entry field_name 2, field_entry field_name 6, field_entry field_parameters 4, field_entry field_parameters 8, field_entry field_return_type 13, field_entry field_type_parameters 3, field_entry field_type_parameters 7]),
    (5320, [field_entry field_body 16, field_entry field_name 2, field_entry field_name 6, field_entry field_parameters 4, field_entry field_parameters 8, field_entry field_return_type 13, field_entry field_type_parameters 3, field_entry field_type_parameters 7]),
    (5328, [field_entry field_body 15, field_entry field_body 16, field_entry field_name 2, field_entry field_name 6, field_entry field_parameters 4, field_entry field_parameters 8, inherited_entry field_raises_type 10, field_entry field_return_type 13, field_entry field_type_parameters 3, field_entry field_type_parameters 7]),
    (5338, [field_entry field_body 16, field_entry field_name 2, field_entry field_name 6, field_entry field_parameters 4, field_entry field_parameters 8, inherited_entry field_raises_type 10, field_entry field_return_type 13, field_entry field_type_parameters 3, field_entry field_type_parameters 7]),
    (5347, [field_entry field_body 15, field_entry field_body 16, field_entry field_name 2, field_entry field_name 6, field_entry field_parameters 4, field_entry field_parameters 8, inherited_entry field_raises_type 10, field_entry field_return_type 12, field_entry field_type_parameters 3, field_entry field_type_parameters 7]),
    (5357, [field_entry field_body 16, field_entry field_name 2, field_entry field_name 6, field_entry field_parameters 4, field_entry field_parameters 8, inherited_entry field_raises_type 10, field_entry field_return_type 14, field_entry field_type_parameters 3, field_entry field_type_parameters 7]),
    (5366, [field_entry field_body 16, field_entry field_body 17, field_entry field_name 3, field_entry field_name 6, field_entry field_parameters 4, field_entry field_parameters 7, inherited_entry field_raises_type 9, field_entry field_return_type 13]),
    (5374, [field_entry field_body 16, field_entry field_body 17, field_entry field_name 3, field_entry field_name 6, field_entry field_parameters 4, field_entry field_parameters 8, inherited_entry field_raises_type 9, field_entry field_return_type 13, field_entry field_type_parameters 7]),
    (5383, [field_entry field_body 16, field_entry field_body 17, field_entry field_name 3, field_entry field_name 6, field_entry field_parameters 4, field_entry field_parameters 8, field_entry field_return_type 13, field_entry field_type_parameters 7])]"

definition field_map_entries_43 :: "(nat \<times> TSFieldMapEntry list) list" where "field_map_entries_43 = [

    (5391, [field_entry field_body 16, field_entry field_body 17, field_entry field_name 3, field_entry field_name 6, field_entry field_parameters 4, field_entry field_parameters 8, inherited_entry field_raises_type 10, field_entry field_return_type 13, field_entry field_type_parameters 7]),
    (5400, [field_entry field_body 16, field_entry field_body 17, field_entry field_name 3, field_entry field_name 6, field_entry field_parameters 4, field_entry field_parameters 8, inherited_entry field_raises_type 10, field_entry field_return_type 14, field_entry field_type_parameters 7]),
    (5409, [field_entry field_body 17, field_entry field_name 3, field_entry field_name 6, field_entry field_parameters 4, field_entry field_parameters 8, inherited_entry field_raises_type 10, field_entry field_return_type 14, field_entry field_type_parameters 7]),
    (5417, [field_entry field_body 16, field_entry field_body 17, field_entry field_name 3, field_entry field_name 7, field_entry field_parameters 5, field_entry field_parameters 8, inherited_entry field_raises_type 9, field_entry field_return_type 13, field_entry field_type_parameters 4]),
    (5426, [field_entry field_body 16, field_entry field_body 17, field_entry field_name 3, field_entry field_name 7, field_entry field_parameters 5, field_entry field_parameters 8, field_entry field_return_type 13, field_entry field_type_parameters 4]),
    (5434, [field_entry field_body 16, field_entry field_body 17, field_entry field_name 3, field_entry field_name 7, field_entry field_parameters 5, field_entry field_parameters 8, inherited_entry field_raises_type 10, field_entry field_return_type 13, field_entry field_type_parameters 4]),
    (5443, [field_entry field_body 16, field_entry field_body 17, field_entry field_name 3, field_entry field_name 7, field_entry field_parameters 5, field_entry field_parameters 8, inherited_entry field_raises_type 10, field_entry field_return_type 14, field_entry field_type_parameters 4]),
    (5452, [field_entry field_body 17, field_entry field_name 3, field_entry field_name 7, field_entry field_parameters 5, field_entry field_parameters 8, inherited_entry field_raises_type 10, field_entry field_return_type 14, field_entry field_type_parameters 4]),
    (5460, [field_entry field_body 16, field_entry field_body 17, field_entry field_name 3, field_entry field_name 7, field_entry field_parameters 5, field_entry field_parameters 9, field_entry field_return_type 13, field_entry field_type_parameters 4, field_entry field_type_parameters 8]),
    (5469, [field_entry field_body 16, field_entry field_body 17, field_entry field_name 3, field_entry field_name 7, field_entry field_parameters 5, field_entry field_parameters 9, inherited_entry field_raises_type 10, field_entry field_return_type 13, field_entry field_type_parameters 4, field_entry field_type_parameters 8]),
    (5479, [field_entry field_body 16, field_entry field_body 17, field_entry field_name 3, field_entry field_name 7, field_entry field_parameters 5, field_entry field_parameters 9, inherited_entry field_raises_type 10, field_entry field_return_type 14, field_entry field_type_parameters 4, field_entry field_type_parameters 8]),
    (5489, [field_entry field_body 17, field_entry field_name 3, field_entry field_name 7, field_entry field_parameters 5, field_entry field_parameters 9, inherited_entry field_raises_type 10, field_entry field_return_type 14, field_entry field_type_parameters 4, field_entry field_type_parameters 8]),
    (5498, [field_entry field_body 16, field_entry field_body 17, field_entry field_name 3, field_entry field_name 7, field_entry field_parameters 5, field_entry field_parameters 9, field_entry field_return_type 14, field_entry field_type_parameters 4, field_entry field_type_parameters 8]),
    (5507, [field_entry field_body 17, field_entry field_name 3, field_entry field_name 7, field_entry field_parameters 5, field_entry field_parameters 9, field_entry field_return_type 14, field_entry field_type_parameters 4, field_entry field_type_parameters 8]),
    (5515, [field_entry field_body 16, field_entry field_body 17, field_entry field_name 3, field_entry field_name 7, field_entry field_parameters 5, field_entry field_parameters 9, inherited_entry field_raises_type 11, field_entry field_return_type 14, field_entry field_type_parameters 4, field_entry field_type_parameters 8])]"

definition field_map_entries_44 :: "(nat \<times> TSFieldMapEntry list) list" where "field_map_entries_44 = [

    (5525, [field_entry field_body 17, field_entry field_name 3, field_entry field_name 7, field_entry field_parameters 5, field_entry field_parameters 9, inherited_entry field_raises_type 11, field_entry field_return_type 14, field_entry field_type_parameters 4, field_entry field_type_parameters 8]),
    (5534, [field_entry field_body 16, field_entry field_body 17, field_entry field_name 3, field_entry field_name 7, field_entry field_parameters 5, field_entry field_parameters 9, inherited_entry field_raises_type 11, field_entry field_return_type 13, field_entry field_type_parameters 4, field_entry field_type_parameters 8]),
    (5544, [field_entry field_body 17, field_entry field_name 3, field_entry field_name 7, field_entry field_parameters 5, field_entry field_parameters 9, inherited_entry field_raises_type 11, field_entry field_return_type 15, field_entry field_type_parameters 4, field_entry field_type_parameters 8]),
    (5553, [field_entry field_body 16, field_entry field_body 17, field_entry field_name 2, field_entry field_name 5, field_entry field_parameters 3, field_entry field_parameters 7, inherited_entry field_raises_type 9, field_entry field_return_type 13, field_entry field_type_parameters 6]),
    (5562, [field_entry field_body 16, field_entry field_body 17, field_entry field_name 2, field_entry field_name 6, field_entry field_parameters 4, field_entry field_parameters 7, inherited_entry field_raises_type 9, field_entry field_return_type 13, field_entry field_type_parameters 3]),
    (5571, [field_entry field_body 16, field_entry field_body 17, field_entry field_name 2, field_entry field_name 6, field_entry field_parameters 4, field_entry field_parameters 8, inherited_entry field_raises_type 9, field_entry field_return_type 13, field_entry field_type_parameters 3, field_entry field_type_parameters 7]),
    (5581, [field_entry field_body 16, field_entry field_body 17, field_entry field_name 2, field_entry field_name 6, field_entry field_parameters 4, field_entry field_parameters 8, field_entry field_return_type 13, field_entry field_type_parameters 3, field_entry field_type_parameters 7]),
    (5590, [field_entry field_body 16, field_entry field_body 17, field_entry field_name 2, field_entry field_name 6, field_entry field_parameters 4, field_entry field_parameters 8, inherited_entry field_raises_type 10, field_entry field_return_type 13, field_entry field_type_parameters 3, field_entry field_type_parameters 7]),
    (5600, [field_entry field_body 16, field_entry field_body 17, field_entry field_name 2, field_entry field_name 6, field_entry field_parameters 4, field_entry field_parameters 8, inherited_entry field_raises_type 10, field_entry field_return_type 14, field_entry field_type_parameters 3, field_entry field_type_parameters 7]),
    (5610, [field_entry field_body 17, field_entry field_name 2, field_entry field_name 6, field_entry field_parameters 4, field_entry field_parameters 8, inherited_entry field_raises_type 10, field_entry field_return_type 14, field_entry field_type_parameters 3, field_entry field_type_parameters 7]),
    (5619, [field_entry field_body 17, field_entry field_body 18, field_entry field_name 3, field_entry field_name 6, field_entry field_parameters 4, field_entry field_parameters 8, inherited_entry field_raises_type 10, field_entry field_return_type 14, field_entry field_type_parameters 7]),
    (5628, [field_entry field_body 17, field_entry field_body 18, field_entry field_name 3, field_entry field_name 7, field_entry field_parameters 5, field_entry field_parameters 8, inherited_entry field_raises_type 10, field_entry field_return_type 14, field_entry field_type_parameters 4]),
    (5637, [field_entry field_body 17, field_entry field_body 18, field_entry field_name 3, field_entry field_name 7, field_entry field_parameters 5, field_entry field_parameters 9, inherited_entry field_raises_type 10, field_entry field_return_type 14, field_entry field_type_parameters 4, field_entry field_type_parameters 8]),
    (5647, [field_entry field_body 17, field_entry field_body 18, field_entry field_name 3, field_entry field_name 7, field_entry field_parameters 5, field_entry field_parameters 9, field_entry field_return_type 14, field_entry field_type_parameters 4, field_entry field_type_parameters 8])]"

definition field_map_entries_45 :: "(nat \<times> TSFieldMapEntry list) list" where "field_map_entries_45 = [

    (5656, [field_entry field_body 17, field_entry field_body 18, field_entry field_name 3, field_entry field_name 7, field_entry field_parameters 5, field_entry field_parameters 9, inherited_entry field_raises_type 11, field_entry field_return_type 14, field_entry field_type_parameters 4, field_entry field_type_parameters 8]),
    (5666, [field_entry field_body 17, field_entry field_body 18, field_entry field_name 3, field_entry field_name 7, field_entry field_parameters 5, field_entry field_parameters 9, inherited_entry field_raises_type 11, field_entry field_return_type 15, field_entry field_type_parameters 4, field_entry field_type_parameters 8]),
    (5676, [field_entry field_body 18, field_entry field_name 3, field_entry field_name 7, field_entry field_parameters 5, field_entry field_parameters 9, inherited_entry field_raises_type 11, field_entry field_return_type 15, field_entry field_type_parameters 4, field_entry field_type_parameters 8]),
    (5685, [field_entry field_body 17, field_entry field_body 18, field_entry field_name 2, field_entry field_name 6, field_entry field_parameters 4, field_entry field_parameters 8, inherited_entry field_raises_type 10, field_entry field_return_type 14, field_entry field_type_parameters 3, field_entry field_type_parameters 7]),
    (5695, [field_entry field_body 18, field_entry field_body 19, field_entry field_name 3, field_entry field_name 7, field_entry field_parameters 5, field_entry field_parameters 9, inherited_entry field_raises_type 11, field_entry field_return_type 15, field_entry field_type_parameters 4, field_entry field_type_parameters 8])]"

definition field_map_entry_rows :: "(nat \<times> TSFieldMapEntry list) list" where
  "field_map_entry_rows = concat [
    field_map_entries_0, field_map_entries_1, field_map_entries_2, field_map_entries_3, field_map_entries_4,
    field_map_entries_5, field_map_entries_6, field_map_entries_7, field_map_entries_8, field_map_entries_9,
    field_map_entries_10, field_map_entries_11, field_map_entries_12, field_map_entries_13, field_map_entries_14,
    field_map_entries_15, field_map_entries_16, field_map_entries_17, field_map_entries_18, field_map_entries_19,
    field_map_entries_20, field_map_entries_21, field_map_entries_22, field_map_entries_23, field_map_entries_24,
    field_map_entries_25, field_map_entries_26, field_map_entries_27, field_map_entries_28, field_map_entries_29,
    field_map_entries_30, field_map_entries_31, field_map_entries_32, field_map_entries_33, field_map_entries_34,
    field_map_entries_35, field_map_entries_36, field_map_entries_37, field_map_entries_38, field_map_entries_39,
    field_map_entries_40, field_map_entries_41, field_map_entries_42, field_map_entries_43, field_map_entries_44,
    field_map_entries_45]"

definition ts_field_map_entries :: "TSFieldMapEntry list" where
  "ts_field_map_entries = designated_runs (field_entry 0 0) field_map_entry_rows"

section \<open>Aliases\<close>

definition alias_sequences_0 :: "(nat \<times> (nat \<times> nat) list) list" where "alias_sequences_0 = [
    (0, []), (1, [(0, sym_identifier)]), (2, [(0, sym_list_splat)]), (5, [(1, sym_identifier)]),
    (18, [(2, sym_type)]), (23, [(2, alias_sym_as_pattern_target)]),
    (36, [(1, sym_parenthesized_expression)]), (42, [(3, sym_block)]), (43, [(3, sym_block)]),
    (47, [(3, sym_block)]), (48, [(2, sym_block)]), (49, [(3, sym_block)]),
    (50, [(0, sym_identifier)]), (54, [(2, sym_identifier)]),
    (56, [(0, alias_sym_format_expression)]), (61, [(4, sym_block)]), (63, [(3, sym_block)]),
    (64, [(3, sym_block)]), (68, [(4, sym_block)]), (69, [(3, sym_block)]), (78, [(4, sym_block)]),
    (79, [(4, sym_block)]), (82, [(0, sym_identifier), (2, sym_identifier)]),
    (83, [(2, sym_identifier)]), (84, [(1, sym_identifier)]), (86, [(2, sym_identifier)]),
    (94, [(1, sym_identifier)]), (99, [(3, sym_block)]), (106, [(5, sym_block)]),
    (107, [(5, sym_block)]), (109, [(2, sym_block)]), (110, [(5, sym_block)]),
    (111, [(5, sym_block)]), (112, [(5, sym_block)]), (123, [(5, sym_block)]),
    (129, [(1, sym_identifier)]), (130, [(1, sym_identifier)]), (135, [(6, sym_block)]),
    (137, [(6, sym_block)]), (138, [(6, sym_block)]), (139, [(6, sym_block)]),
    (140, [(5, sym_block)]), (142, [(3, sym_block)]), (143, [(6, sym_block)]),
    (145, [(6, sym_block)]), (147, [(6, sym_block)]), (148, [(6, sym_block)]),
    (150, [(6, sym_block)]), (151, [(6, sym_block)]), (167, [(1, sym_identifier)])]"

definition alias_sequences_1 :: "(nat \<times> (nat \<times> nat) list) list" where "alias_sequences_1 = [
    (168, [(1, sym_identifier)]), (171, [(3, sym_block)]), (172, [(6, sym_block)]),
    (174, [(7, sym_block)]), (175, [(7, sym_block)]), (177, [(7, sym_block)]),
    (179, [(7, sym_block)]), (180, [(7, sym_block)]), (182, [(7, sym_block)]),
    (183, [(7, sym_block)]), (185, [(7, sym_block)]), (187, [(7, sym_block)]),
    (189, [(7, sym_block)]), (191, [(7, sym_block)]), (192, [(7, sym_block)]),
    (194, [(7, sym_block)]), (195, [(7, sym_block)]), (197, [(7, sym_block)]),
    (199, [(7, sym_block)]), (200, [(7, sym_block)]), (218, [(1, sym_identifier)]),
    (223, [(4, sym_block)]), (225, [(4, sym_block)]), (227, [(7, sym_block)]),
    (229, [(8, sym_block)]), (231, [(8, sym_block)]), (233, [(8, sym_block)]),
    (235, [(8, sym_block)]), (236, [(8, sym_block)]), (238, [(8, sym_block)]),
    (239, [(8, sym_block)]), (241, [(8, sym_block)]), (243, [(8, sym_block)]),
    (244, [(8, sym_block)]), (245, [(5, sym_block)]), (246, [(8, sym_block)]),
    (248, [(8, sym_block)]), (250, [(8, sym_block)]), (251, [(8, sym_block)]),
    (253, [(8, sym_block)]), (256, [(8, sym_block)]), (258, [(8, sym_block)]),
    (259, [(8, sym_block)]), (261, [(8, sym_block)]), (263, [(8, sym_block)]),
    (265, [(8, sym_block)]), (266, [(8, sym_block)]), (268, [(8, sym_block)]),
    (288, [(1, sym_identifier)]), (290, [(5, sym_block)])]"

definition alias_sequences_2 :: "(nat \<times> (nat \<times> nat) list) list" where "alias_sequences_2 = [
    (292, [(5, sym_block)]), (294, [(9, sym_block)]), (296, [(9, sym_block)]),
    (298, [(9, sym_block)]), (299, [(9, sym_block)]), (301, [(9, sym_block)]),
    (304, [(9, sym_block)]), (306, [(9, sym_block)]), (307, [(9, sym_block)]),
    (309, [(9, sym_block)]), (311, [(9, sym_block)]), (313, [(9, sym_block)]),
    (314, [(9, sym_block)]), (316, [(9, sym_block)]), (318, [(9, sym_block)]),
    (319, [(9, sym_block)]), (320, [(9, sym_block)]), (321, [(9, sym_block)]),
    (324, [(9, sym_block)]), (326, [(9, sym_block)]), (328, [(9, sym_block)]),
    (329, [(9, sym_block)]), (330, [(9, sym_block)]), (332, [(9, sym_block)]),
    (335, [(9, sym_block)]), (337, [(9, sym_block)]), (338, [(9, sym_block)]),
    (340, [(9, sym_block)]), (343, [(9, sym_block)]), (345, [(9, sym_block)]),
    (369, [(6, sym_block)]), (371, [(10, sym_block)]), (372, [(10, sym_block)]),
    (373, [(10, sym_block)]), (374, [(10, sym_block)]), (377, [(10, sym_block)]),
    (379, [(10, sym_block)]), (381, [(10, sym_block)]), (382, [(10, sym_block)]),
    (383, [(10, sym_block)]), (385, [(10, sym_block)]), (388, [(10, sym_block)]),
    (390, [(10, sym_block)]), (391, [(10, sym_block)]), (393, [(10, sym_block)]),
    (396, [(10, sym_block)]), (398, [(10, sym_block)]), (399, [(10, sym_block)]),
    (401, [(10, sym_block)]), (403, [(10, sym_block)])]"

definition alias_sequences_3 :: "(nat \<times> (nat \<times> nat) list) list" where "alias_sequences_3 = [
    (404, [(10, sym_block)]), (406, [(10, sym_block)]), (407, [(10, sym_block)]),
    (409, [(10, sym_block)]), (410, [(10, sym_block)]), (411, [(10, sym_block)]),
    (415, [(10, sym_block)]), (417, [(10, sym_block)]), (419, [(10, sym_block)]),
    (421, [(10, sym_block)]), (424, [(10, sym_block)]), (426, [(10, sym_block)]),
    (428, [(10, sym_block)]), (429, [(10, sym_block)]), (430, [(10, sym_block)]),
    (432, [(10, sym_block)]), (456, [(11, sym_block)]), (458, [(11, sym_block)]),
    (460, [(11, sym_block)]), (461, [(11, sym_block)]), (463, [(11, sym_block)]),
    (464, [(11, sym_block)]), (466, [(11, sym_block)]), (467, [(11, sym_block)]),
    (468, [(11, sym_block)]), (472, [(11, sym_block)]), (474, [(11, sym_block)]),
    (476, [(11, sym_block)]), (478, [(11, sym_block)]), (481, [(11, sym_block)]),
    (483, [(11, sym_block)]), (485, [(11, sym_block)]), (486, [(11, sym_block)]),
    (487, [(11, sym_block)]), (489, [(11, sym_block)]), (491, [(11, sym_block)]),
    (493, [(11, sym_block)]), (495, [(11, sym_block)]), (497, [(11, sym_block)]),
    (498, [(11, sym_block)]), (500, [(11, sym_block)]), (501, [(11, sym_block)]),
    (503, [(11, sym_block)]), (505, [(11, sym_block)]), (506, [(11, sym_block)]),
    (507, [(11, sym_block)]), (509, [(11, sym_block)]), (511, [(11, sym_block)]),
    (512, [(11, sym_block)]), (514, [(11, sym_block)])]"

definition alias_sequences_4 :: "(nat \<times> (nat \<times> nat) list) list" where "alias_sequences_4 = [
    (515, [(11, sym_block)]), (520, [(11, sym_block)]), (524, [(11, sym_block)]),
    (526, [(11, sym_block)]), (528, [(11, sym_block)]), (530, [(11, sym_block)]),
    (546, [(12, sym_block)]), (548, [(12, sym_block)]), (550, [(12, sym_block)]),
    (552, [(12, sym_block)]), (553, [(12, sym_block)]), (555, [(12, sym_block)]),
    (556, [(12, sym_block)]), (558, [(12, sym_block)]), (560, [(12, sym_block)]),
    (561, [(12, sym_block)]), (562, [(12, sym_block)]), (564, [(12, sym_block)]),
    (566, [(12, sym_block)]), (567, [(12, sym_block)]), (569, [(12, sym_block)]),
    (570, [(12, sym_block)]), (575, [(12, sym_block)]), (579, [(12, sym_block)]),
    (581, [(12, sym_block)]), (583, [(12, sym_block)]), (585, [(12, sym_block)]),
    (587, [(12, sym_block)]), (589, [(12, sym_block)]), (590, [(12, sym_block)]),
    (592, [(12, sym_block)]), (595, [(12, sym_block)]), (597, [(12, sym_block)]),
    (598, [(12, sym_block)]), (600, [(12, sym_block)]), (602, [(12, sym_block)]),
    (604, [(12, sym_block)]), (605, [(12, sym_block)]), (607, [(12, sym_block)]),
    (608, [(12, sym_block)]), (610, [(12, sym_block)]), (612, [(12, sym_block)]),
    (614, [(12, sym_block)]), (615, [(12, sym_block)]), (617, [(12, sym_block)]),
    (618, [(12, sym_block)]), (620, [(12, sym_block)]), (622, [(12, sym_block)]),
    (623, [(12, sym_block)]), (629, [(12, sym_block)])]"

definition alias_sequences_5 :: "(nat \<times> (nat \<times> nat) list) list" where "alias_sequences_5 = [
    (637, [(13, sym_block)]), (639, [(13, sym_block)]), (640, [(13, sym_block)]),
    (642, [(13, sym_block)]), (645, [(13, sym_block)]), (647, [(13, sym_block)]),
    (648, [(13, sym_block)]), (650, [(13, sym_block)]), (652, [(13, sym_block)]),
    (654, [(13, sym_block)]), (655, [(13, sym_block)]), (657, [(13, sym_block)]),
    (658, [(13, sym_block)]), (660, [(13, sym_block)]), (662, [(13, sym_block)]),
    (664, [(13, sym_block)]), (665, [(13, sym_block)]), (667, [(13, sym_block)]),
    (668, [(13, sym_block)]), (670, [(13, sym_block)]), (672, [(13, sym_block)]),
    (673, [(13, sym_block)]), (679, [(13, sym_block)]), (682, [(13, sym_block)]),
    (684, [(13, sym_block)]), (686, [(13, sym_block)]), (687, [(13, sym_block)]),
    (688, [(13, sym_block)]), (690, [(13, sym_block)]), (693, [(13, sym_block)]),
    (695, [(13, sym_block)]), (696, [(13, sym_block)]), (698, [(13, sym_block)]),
    (701, [(13, sym_block)]), (703, [(13, sym_block)]), (705, [(13, sym_block)]),
    (707, [(13, sym_block)]), (708, [(13, sym_block)]), (710, [(13, sym_block)]),
    (713, [(13, sym_block)]), (715, [(13, sym_block)]), (716, [(13, sym_block)]),
    (718, [(13, sym_block)]), (720, [(13, sym_block)]), (722, [(13, sym_block)]),
    (723, [(13, sym_block)]), (725, [(13, sym_block)]), (730, [(14, sym_block)]),
    (732, [(14, sym_block)]), (734, [(14, sym_block)])]"

definition alias_sequences_6 :: "(nat \<times> (nat \<times> nat) list) list" where "alias_sequences_6 = [
    (735, [(14, sym_block)]), (736, [(14, sym_block)]), (738, [(14, sym_block)]),
    (741, [(14, sym_block)]), (743, [(14, sym_block)]), (744, [(14, sym_block)]),
    (746, [(14, sym_block)]), (749, [(14, sym_block)]), (751, [(14, sym_block)]),
    (753, [(14, sym_block)]), (755, [(14, sym_block)]), (756, [(14, sym_block)]),
    (758, [(14, sym_block)]), (761, [(14, sym_block)]), (763, [(14, sym_block)]),
    (764, [(14, sym_block)]), (766, [(14, sym_block)]), (768, [(14, sym_block)]),
    (770, [(14, sym_block)]), (771, [(14, sym_block)]), (773, [(14, sym_block)]),
    (778, [(14, sym_block)]), (780, [(14, sym_block)]), (782, [(14, sym_block)]),
    (784, [(14, sym_block)]), (787, [(14, sym_block)]), (789, [(14, sym_block)]),
    (791, [(14, sym_block)]), (792, [(14, sym_block)]), (793, [(14, sym_block)]),
    (795, [(14, sym_block)]), (799, [(14, sym_block)]), (801, [(14, sym_block)]),
    (803, [(14, sym_block)]), (804, [(14, sym_block)]), (805, [(14, sym_block)]),
    (807, [(14, sym_block)]), (810, [(14, sym_block)]), (812, [(14, sym_block)]),
    (813, [(14, sym_block)]), (815, [(14, sym_block)]), (818, [(14, sym_block)]),
    (820, [(14, sym_block)]), (824, [(15, sym_block)]), (826, [(15, sym_block)]),
    (828, [(15, sym_block)]), (830, [(15, sym_block)]), (833, [(15, sym_block)]),
    (835, [(15, sym_block)]), (837, [(15, sym_block)])]"

definition alias_sequences_7 :: "(nat \<times> (nat \<times> nat) list) list" where "alias_sequences_7 = [
    (838, [(15, sym_block)]), (839, [(15, sym_block)]), (841, [(15, sym_block)]),
    (845, [(15, sym_block)]), (847, [(15, sym_block)]), (849, [(15, sym_block)]),
    (850, [(15, sym_block)]), (851, [(15, sym_block)]), (853, [(15, sym_block)]),
    (856, [(15, sym_block)]), (858, [(15, sym_block)]), (859, [(15, sym_block)]),
    (861, [(15, sym_block)]), (864, [(15, sym_block)]), (866, [(15, sym_block)]),
    (871, [(15, sym_block)]), (875, [(15, sym_block)]), (877, [(15, sym_block)]),
    (879, [(15, sym_block)]), (881, [(15, sym_block)]), (885, [(15, sym_block)]),
    (887, [(15, sym_block)]), (889, [(15, sym_block)]), (891, [(15, sym_block)]),
    (894, [(15, sym_block)]), (896, [(15, sym_block)]), (898, [(15, sym_block)]),
    (899, [(15, sym_block)]), (900, [(15, sym_block)]), (902, [(15, sym_block)]),
    (908, [(16, sym_block)]), (912, [(16, sym_block)]), (914, [(16, sym_block)]),
    (916, [(16, sym_block)]), (918, [(16, sym_block)]), (922, [(16, sym_block)]),
    (924, [(16, sym_block)]), (926, [(16, sym_block)]), (928, [(16, sym_block)]),
    (931, [(16, sym_block)]), (933, [(16, sym_block)]), (935, [(16, sym_block)]),
    (936, [(16, sym_block)]), (937, [(16, sym_block)]), (939, [(16, sym_block)]),
    (946, [(16, sym_block)]), (951, [(16, sym_block)]), (955, [(16, sym_block)]),
    (957, [(16, sym_block)]), (959, [(16, sym_block)])]"

definition alias_sequences_8 :: "(nat \<times> (nat \<times> nat) list) list" where "alias_sequences_8 = [
    (961, [(16, sym_block)]), (967, [(17, sym_block)]), (972, [(17, sym_block)]),
    (976, [(17, sym_block)]), (978, [(17, sym_block)]), (980, [(17, sym_block)]),
    (982, [(17, sym_block)]), (989, [(17, sym_block)]), (996, [(18, sym_block)])]"

definition alias_sequence_rows :: "(nat \<times> (nat \<times> nat) list) list" where
  "alias_sequence_rows = concat [
    alias_sequences_0, alias_sequences_1, alias_sequences_2, alias_sequences_3, alias_sequences_4,
    alias_sequences_5, alias_sequences_6, alias_sequences_7, alias_sequences_8]"

definition alias_row :: "(nat \<times> nat) list \<Rightarrow> nat list" where
  "alias_row ds = designated 0 MAX_ALIAS_SEQUENCE_LENGTH ds"

definition ts_alias_sequences :: "nat list list" where
  "ts_alias_sequences = designated (alias_row []) PRODUCTION_ID_COUNT
     (map (\<lambda>(p, ds). (p, alias_row ds)) alias_sequence_rows)"

end
