(* ===== verification/Mojo_Field_Runs.thy ===== *)
theory Mojo_Field_Runs
  imports Mojo_Fields
begin

text \<open>
  The runs of \<open>ts_field_map_entries\<close>, checked block by block: they fill the array without a gap, each
  is sorted by field, and the children they name are below the bound given with each run.
\<close>

section \<open>The fields and aliases of a production\<close>

definition production_fields :: "nat \<Rightarrow> TSFieldMapEntry list" where
  "production_fields p = (let s = ts_field_map_slices ! p
     in take (slice_length s) (drop (slice_index s) ts_field_map_entries))"

fun fields_sorted :: "TSFieldMapEntry list \<Rightarrow> bool" where
  "fields_sorted (e # f # es) \<longleftrightarrow> field_id e \<le> field_id f \<and> fields_sorted (f # es)"
| "fields_sorted es \<longleftrightarrow> True"

definition entry_ok :: "nat \<Rightarrow> TSFieldMapEntry \<Rightarrow> bool" where
  "entry_ok c e \<longleftrightarrow> 1 \<le> field_id e \<and> field_id e \<le> FIELD_COUNT \<and> child_index e < c"

text \<open>A production with \<open>c\<close> children has a child for each of its fields, and for each alias.\<close>

definition fields_fit :: "nat \<Rightarrow> nat \<Rightarrow> bool" where
  "fields_fit p c \<longleftrightarrow> list_all (\<lambda>e. child_index e < c) (production_fields p)"

definition aliases_fit :: "nat \<Rightarrow> nat \<Rightarrow> bool" where
  "aliases_fit p c \<longleftrightarrow>
     list_all (\<lambda>i. ts_alias_sequences ! p ! i \<noteq> 0 \<longrightarrow> i < c) [0..<MAX_ALIAS_SEQUENCE_LENGTH]"

section \<open>Runs of entries\<close>

text \<open>A run of \<open>n\<close> entries at index \<open>i\<close>, sorted by field, whose children are below \<open>c\<close>.\<close>

definition run_ok :: "nat \<Rightarrow> nat \<Rightarrow> nat \<Rightarrow> TSFieldMapEntry list \<Rightarrow> bool" where
  "run_ok i n c es \<longleftrightarrow> length es = n \<and> fields_sorted es \<and> list_all (entry_ok c) es"

definition run_at :: "nat \<Rightarrow> nat \<Rightarrow> nat \<Rightarrow> bool" where
  "run_at i n c \<longleftrightarrow> (\<exists>es. (i, es) \<in> set field_map_entry_rows \<and> run_ok i n c es)"

fun runs_match :: "(nat \<times> nat \<times> nat) list \<Rightarrow> (nat \<times> TSFieldMapEntry list) list \<Rightarrow> bool" where
  "runs_match ((i, n, c) # ks) ((j, es) # rs) \<longleftrightarrow> i = j \<and> run_ok i n c es \<and> runs_match ks rs"
| "runs_match [] rs \<longleftrightarrow> rs = []"
| "runs_match (k # ks) [] \<longleftrightarrow> False"

lemma runs_match_run_at:
  "runs_match ks rs \<Longrightarrow> set rs \<subseteq> set field_map_entry_rows \<Longrightarrow> list_all (\<lambda>(i, n, c). run_at i n c) ks"
  by (induction ks rs rule: runs_match.induct) (auto simp: run_at_def)

lemma entry_ok_simps:
  "entry_ok c (field_entry f i) \<longleftrightarrow> 1 \<le> f \<and> f \<le> FIELD_COUNT \<and> i < c"
  "entry_ok c (inherited_entry f i) \<longleftrightarrow> 1 \<le> f \<and> f \<le> FIELD_COUNT \<and> i < c"
  by (simp_all add: entry_ok_def field_entry_def inherited_entry_def)

lemma field_id_simps:
  "field_id (field_entry f i) = f"
  "field_id (inherited_entry f i) = f"
  by (simp_all add: field_entry_def inherited_entry_def)

lemmas run_check = run_ok_def entry_ok_simps field_id_simps FIELD_COUNT_def field_defs

lemma field_map_entries_0_ok:
  "runs_match [
    (0, 1, 1), (1, 1, 2), (2, 1, 2), (3, 1, 1), (4, 1, 2), (5, 2, 2), (7, 2, 2), (9, 1, 2),
    (10, 1, 2), (11, 2, 2), (13, 1, 3), (14, 2, 3), (16, 1, 3), (17, 1, 3), (18, 2, 3),
    (20, 2, 3), (22, 2, 3), (24, 3, 3), (27, 1, 3), (28, 2, 3), (30, 1, 1), (31, 2, 3),
    (33, 2, 2), (35, 2, 3), (37, 1, 2), (38, 1, 2), (39, 2, 2), (41, 2, 3), (43, 1, 4),
    (44, 2, 4), (46, 1, 2), (47, 1, 2), (48, 2, 2), (50, 2, 4), (52, 2, 4), (54, 1, 4),
    (55, 2, 4), (57, 2, 4), (59, 1, 2), (60, 3, 4), (63, 2, 2), (65, 2, 4), (67, 1, 4),
    (68, 2, 3), (70, 1, 3), (71, 2, 4), (73, 2, 3), (75, 2, 3), (77, 2, 3), (79, 3, 5),
    (82, 3, 5), (85, 3, 5), (88, 1, 1), (89, 3, 5), (92, 3, 5)] field_map_entries_0"
  "runs_end 0 field_map_entries_0 = Some 95"
  unfolding field_map_entries_0_def by (simp_all add: run_check runs_end.simps(2))

lemma field_map_entries_1_ok:
  "runs_match [
    (95, 3, 5), (98, 3, 5), (101, 4, 5), (105, 1, 5), (106, 3, 5), (109, 3, 5), (112, 2, 4),
    (114, 2, 5), (116, 1, 2), (117, 2, 2), (119, 1, 4), (120, 1, 3), (121, 1, 2), (122, 3, 5),
    (125, 3, 5), (128, 1, 4), (129, 3, 5), (132, 1, 2), (133, 3, 4), (136, 2, 2), (138, 2, 4),
    (140, 2, 4), (142, 3, 4), (145, 1, 5), (146, 2, 5), (148, 2, 3), (150, 4, 2), (154, 3, 6),
    (157, 4, 6), (161, 4, 6), (165, 2, 2), (167, 4, 6), (171, 4, 6), (175, 1, 2), (176, 4, 6),
    (180, 2, 6), (182, 3, 6), (185, 3, 6), (188, 4, 6), (192, 3, 6), (195, 4, 6), (199, 4, 6)] field_map_entries_1"
  "runs_end 95 field_map_entries_1 = Some 203"
  unfolding field_map_entries_1_def by (simp_all add: run_check runs_end.simps(2))

lemma field_map_entries_2_ok:
  "runs_match [
    (203, 1, 5), (204, 1, 4), (205, 2, 5), (207, 1, 2), (208, 2, 4), (210, 2, 2), (212, 2, 5),
    (214, 2, 4), (216, 4, 6), (220, 4, 6), (224, 4, 6), (228, 4, 6), (232, 3, 5), (235, 3, 5),
    (238, 2, 5), (240, 3, 5), (243, 1, 4), (244, 2, 4), (246, 4, 7), (250, 5, 7), (255, 3, 7),
    (258, 4, 7), (262, 3, 7), (265, 4, 7), (269, 4, 7), (273, 4, 7), (277, 4, 7), (281, 4, 7),
    (285, 4, 7), (289, 3, 7), (292, 5, 7), (297, 4, 7), (301, 4, 7), (305, 5, 7), (310, 4, 7)] field_map_entries_2"
  "runs_end 203 field_map_entries_2 = Some 314"
  unfolding field_map_entries_2_def by (simp_all add: run_check runs_end.simps(2))

lemma field_map_entries_3_ok:
  "runs_match [
    (314, 5, 7), (319, 1, 6), (320, 2, 6), (322, 2, 6), (324, 2, 5), (326, 2, 6), (328, 2, 6),
    (330, 3, 6), (333, 2, 6), (335, 2, 5), (337, 3, 6), (340, 3, 5), (343, 5, 7), (348, 3, 6),
    (351, 3, 6), (354, 2, 6), (356, 3, 5), (359, 3, 5), (362, 2, 2), (364, 1, 4), (365, 4, 8),
    (369, 4, 8), (373, 3, 8), (376, 4, 8), (380, 4, 8), (384, 3, 8), (387, 5, 8), (392, 4, 8),
    (396, 4, 8), (400, 5, 8), (405, 4, 8), (409, 5, 8), (414, 5, 8), (419, 4, 8), (423, 5, 8)] field_map_entries_3"
  "runs_end 314 field_map_entries_3 = Some 428"
  unfolding field_map_entries_3_def by (simp_all add: run_check runs_end.simps(2))

lemma field_map_entries_4_ok:
  "runs_match [
    (428, 4, 8), (432, 4, 8), (436, 5, 8), (441, 5, 8), (446, 4, 8), (450, 3, 8), (453, 5, 8),
    (458, 4, 8), (462, 5, 8), (467, 5, 8), (472, 4, 8), (476, 6, 8), (482, 5, 8), (487, 5, 8),
    (492, 1, 7), (493, 2, 7), (495, 2, 7), (497, 2, 7), (499, 3, 7), (502, 2, 7), (504, 3, 7),
    (507, 3, 7), (510, 3, 7), (513, 2, 7), (515, 3, 7), (518, 3, 7), (521, 3, 6), (524, 3, 7),
    (527, 3, 7), (530, 4, 7), (534, 3, 7), (537, 2, 6), (539, 3, 6)] field_map_entries_4"
  "runs_end 428 field_map_entries_4 = Some 542"
  unfolding field_map_entries_4_def by (simp_all add: run_check runs_end.simps(2))

lemma field_map_entries_5_ok:
  "runs_match [
    (542, 4, 3), (546, 4, 2), (550, 2, 3), (552, 1, 5), (553, 2, 5), (555, 2, 5), (557, 5, 9),
    (562, 4, 9), (566, 4, 9), (570, 4, 9), (574, 5, 9), (579, 4, 9), (583, 4, 9), (587, 5, 9),
    (592, 5, 9), (597, 4, 9), (601, 3, 9), (604, 5, 9), (609, 4, 9), (613, 5, 9), (618, 5, 9),
    (623, 4, 9), (627, 6, 9), (633, 5, 9), (638, 5, 9), (643, 5, 9), (648, 5, 9), (653, 4, 9),
    (657, 5, 9)] field_map_entries_5"
  "runs_end 542 field_map_entries_5 = Some 662"
  unfolding field_map_entries_5_def by (simp_all add: run_check runs_end.simps(2))

lemma field_map_entries_6_ok:
  "runs_match [
    (662, 4, 9), (666, 5, 9), (671, 6, 9), (677, 5, 9), (682, 5, 9), (687, 4, 9), (691, 5, 9),
    (696, 5, 9), (701, 4, 9), (705, 5, 9), (710, 6, 9), (716, 5, 9), (721, 5, 9), (726, 6, 9),
    (732, 6, 9), (738, 5, 9), (743, 4, 9), (747, 6, 9), (753, 5, 9), (758, 2, 8), (760, 2, 8),
    (762, 3, 8), (765, 3, 8), (768, 3, 8), (771, 2, 8), (773, 3, 8), (776, 3, 8), (779, 3, 8)] field_map_entries_6"
  "runs_end 662 field_map_entries_6 = Some 782"
  unfolding field_map_entries_6_def by (simp_all add: run_check runs_end.simps(2))

lemma field_map_entries_7_ok:
  "runs_match [
    (782, 4, 8), (786, 2, 8), (788, 3, 8), (791, 3, 8), (794, 3, 8), (797, 4, 8), (801, 3, 8),
    (804, 4, 8), (808, 4, 8), (812, 4, 8), (816, 4, 7), (820, 2, 6), (822, 2, 6), (824, 3, 6),
    (827, 1, 6), (828, 5, 10), (833, 5, 10), (838, 5, 10), (843, 4, 10), (847, 5, 10),
    (852, 4, 10), (856, 5, 10), (861, 6, 10), (867, 5, 10), (872, 5, 10), (877, 4, 10),
    (881, 5, 10), (886, 5, 10), (891, 4, 10), (895, 5, 10)] field_map_entries_7"
  "runs_end 782 field_map_entries_7 = Some 900"
  unfolding field_map_entries_7_def by (simp_all add: run_check runs_end.simps(2))

lemma field_map_entries_8_ok:
  "runs_match [
    (900, 6, 10), (906, 5, 10), (911, 5, 10), (916, 6, 10), (922, 6, 10), (928, 5, 10),
    (933, 4, 10), (937, 6, 10), (943, 5, 10), (948, 6, 10), (954, 5, 10), (959, 6, 10),
    (965, 6, 10), (971, 6, 10), (977, 5, 10), (982, 5, 10), (987, 4, 10), (991, 6, 10),
    (997, 5, 10), (1002, 6, 10), (1008, 5, 10), (1013, 4, 10), (1017, 5, 10)] field_map_entries_8"
  "runs_end 900 field_map_entries_8 = Some 1022"
  unfolding field_map_entries_8_def by (simp_all add: run_check runs_end.simps(2))

lemma field_map_entries_9_ok:
  "runs_match [
    (1022, 6, 10), (1028, 5, 10), (1033, 5, 10), (1038, 6, 10), (1044, 5, 10), (1049, 6, 10),
    (1055, 5, 10), (1060, 6, 10), (1066, 7, 10), (1073, 6, 10), (1079, 6, 10), (1085, 5, 10),
    (1090, 6, 10), (1096, 6, 10), (1102, 5, 10), (1107, 2, 9), (1109, 3, 9), (1112, 3, 9),
    (1115, 3, 9), (1118, 4, 9), (1122, 3, 9), (1125, 2, 9), (1127, 3, 9), (1130, 3, 9),
    (1133, 4, 9), (1137, 4, 9), (1141, 3, 9)] field_map_entries_9"
  "runs_end 1022 field_map_entries_9 = Some 1144"
  unfolding field_map_entries_9_def by (simp_all add: run_check runs_end.simps(2))

lemma field_map_entries_10_ok:
  "runs_match [
    (1144, 3, 9), (1147, 4, 9), (1151, 4, 9), (1155, 4, 9), (1159, 3, 9), (1162, 4, 9),
    (1166, 4, 9), (1170, 4, 9), (1174, 5, 9), (1179, 3, 7), (1182, 2, 7), (1184, 2, 7),
    (1186, 6, 11), (1192, 5, 11), (1197, 6, 11), (1203, 6, 11), (1209, 6, 11), (1215, 5, 11),
    (1220, 5, 11), (1225, 4, 11), (1229, 6, 11), (1235, 5, 11), (1240, 6, 11), (1246, 5, 11),
    (1251, 4, 11), (1255, 5, 11), (1260, 6, 11)] field_map_entries_10"
  "runs_end 1144 field_map_entries_10 = Some 1266"
  unfolding field_map_entries_10_def by (simp_all add: run_check runs_end.simps(2))

lemma field_map_entries_11_ok:
  "runs_match [
    (1266, 5, 11), (1271, 5, 11), (1276, 6, 11), (1282, 5, 11), (1287, 6, 11), (1293, 5, 11),
    (1298, 6, 11), (1304, 7, 11), (1311, 6, 11), (1317, 6, 11), (1323, 5, 11), (1328, 6, 11),
    (1334, 6, 11), (1340, 5, 11), (1345, 6, 11), (1351, 6, 11), (1357, 5, 11), (1362, 7, 11),
    (1369, 6, 11), (1375, 6, 11), (1381, 7, 11), (1388, 6, 11)] field_map_entries_11"
  "runs_end 1266 field_map_entries_11 = Some 1394"
  unfolding field_map_entries_11_def by (simp_all add: run_check runs_end.simps(2))

lemma field_map_entries_12_ok:
  "runs_match [
    (1394, 7, 11), (1401, 7, 11), (1408, 6, 11), (1414, 7, 11), (1421, 7, 11), (1428, 5, 11),
    (1433, 6, 11), (1439, 6, 11), (1445, 5, 11), (1450, 5, 11), (1455, 4, 11), (1459, 6, 11),
    (1465, 5, 11), (1470, 6, 11), (1476, 5, 11), (1481, 6, 11), (1487, 6, 11), (1493, 5, 11),
    (1498, 7, 11), (1505, 6, 11), (1511, 7, 11)] field_map_entries_12"
  "runs_end 1394 field_map_entries_12 = Some 1518"
  unfolding field_map_entries_12_def by (simp_all add: run_check runs_end.simps(2))

lemma field_map_entries_13_ok:
  "runs_match [
    (1518, 6, 11), (1524, 5, 11), (1529, 6, 11), (1535, 7, 11), (1542, 6, 11), (1548, 6, 11),
    (1554, 3, 10), (1557, 2, 10), (1559, 3, 10), (1562, 3, 10), (1565, 4, 10), (1569, 4, 10),
    (1573, 3, 10), (1576, 4, 10), (1580, 3, 10), (1583, 4, 10), (1587, 3, 10), (1590, 4, 10),
    (1594, 4, 10), (1598, 4, 10), (1602, 5, 10), (1607, 4, 10), (1611, 3, 10), (1614, 4, 10),
    (1618, 4, 10), (1622, 5, 10), (1627, 5, 10), (1632, 3, 8)] field_map_entries_13"
  "runs_end 1518 field_map_entries_13 = Some 1635"
  unfolding field_map_entries_13_def by (simp_all add: run_check runs_end.simps(2))

lemma field_map_entries_14_ok:
  "runs_match [
    (1635, 6, 12), (1641, 6, 12), (1647, 5, 12), (1652, 7, 12), (1659, 6, 12), (1665, 6, 12),
    (1671, 7, 12), (1678, 6, 12), (1684, 7, 12), (1691, 7, 12), (1698, 6, 12), (1704, 7, 12),
    (1711, 7, 12), (1718, 5, 12), (1723, 6, 12), (1729, 6, 12), (1735, 5, 12), (1740, 5, 12),
    (1745, 4, 12), (1749, 6, 12), (1755, 5, 12)] field_map_entries_14"
  "runs_end 1635 field_map_entries_14 = Some 1760"
  unfolding field_map_entries_14_def by (simp_all add: run_check runs_end.simps(2))

lemma field_map_entries_15_ok:
  "runs_match [
    (1760, 6, 12), (1766, 5, 12), (1771, 6, 12), (1777, 6, 12), (1783, 5, 12), (1788, 7, 12),
    (1795, 6, 12), (1801, 7, 12), (1808, 6, 12), (1814, 5, 12), (1819, 6, 12), (1825, 7, 12),
    (1832, 6, 12), (1838, 6, 12), (1844, 6, 12), (1850, 7, 12), (1857, 6, 12), (1863, 6, 12),
    (1869, 7, 12), (1876, 7, 12), (1883, 6, 12)] field_map_entries_15"
  "runs_end 1760 field_map_entries_15 = Some 1889"
  unfolding field_map_entries_15_def by (simp_all add: run_check runs_end.simps(2))

lemma field_map_entries_16_ok:
  "runs_match [
    (1889, 5, 12), (1894, 7, 12), (1901, 6, 12), (1907, 7, 12), (1914, 7, 12), (1921, 6, 12),
    (1927, 8, 12), (1935, 7, 12), (1942, 7, 12), (1949, 7, 12), (1956, 7, 12), (1963, 6, 12),
    (1969, 8, 12), (1977, 7, 12), (1984, 7, 12), (1991, 8, 12), (1999, 7, 12), (2006, 8, 12),
    (2014, 6, 12)] field_map_entries_16"
  "runs_end 1889 field_map_entries_16 = Some 2020"
  unfolding field_map_entries_16_def by (simp_all add: run_check runs_end.simps(2))

lemma field_map_entries_17_ok:
  "runs_match [
    (2020, 5, 12), (2025, 6, 12), (2031, 6, 12), (2037, 5, 12), (2042, 6, 12), (2048, 7, 12),
    (2055, 7, 12), (2062, 6, 12), (2068, 6, 12), (2074, 5, 12), (2079, 7, 12), (2086, 6, 12),
    (2092, 7, 12), (2099, 6, 12), (2105, 3, 11), (2108, 4, 11), (2112, 3, 11), (2115, 4, 11),
    (2119, 4, 11), (2123, 4, 11), (2127, 3, 11), (2130, 4, 11), (2134, 4, 11), (2138, 5, 11)] field_map_entries_17"
  "runs_end 2020 field_map_entries_17 = Some 2143"
  unfolding field_map_entries_17_def by (simp_all add: run_check runs_end.simps(2))

lemma field_map_entries_18_ok:
  "runs_match [
    (2143, 5, 11), (2148, 4, 11), (2152, 5, 11), (2157, 4, 11), (2161, 5, 11), (2166, 6, 13),
    (2172, 7, 13), (2179, 6, 13), (2185, 6, 13), (2191, 7, 13), (2198, 7, 13), (2205, 6, 13),
    (2211, 5, 13), (2216, 7, 13), (2223, 6, 13), (2229, 7, 13), (2236, 7, 13), (2243, 6, 13),
    (2249, 8, 13), (2257, 7, 13), (2264, 7, 13)] field_map_entries_18"
  "runs_end 2143 field_map_entries_18 = Some 2271"
  unfolding field_map_entries_18_def by (simp_all add: run_check runs_end.simps(2))

lemma field_map_entries_19_ok:
  "runs_match [
    (2271, 7, 13), (2278, 7, 13), (2285, 6, 13), (2291, 8, 13), (2299, 7, 13), (2306, 7, 13),
    (2313, 8, 13), (2321, 7, 13), (2328, 8, 13), (2336, 6, 13), (2342, 5, 13), (2347, 6, 13),
    (2353, 6, 13), (2359, 5, 13), (2364, 6, 13), (2370, 7, 13), (2377, 7, 13), (2384, 6, 13),
    (2390, 6, 13), (2396, 5, 13)] field_map_entries_19"
  "runs_end 2271 field_map_entries_19 = Some 2401"
  unfolding field_map_entries_19_def by (simp_all add: run_check runs_end.simps(2))

lemma field_map_entries_20_ok:
  "runs_match [
    (2401, 7, 13), (2408, 6, 13), (2414, 7, 13), (2421, 6, 13), (2427, 7, 13), (2434, 6, 13),
    (2440, 7, 13), (2447, 6, 13), (2453, 7, 13), (2460, 8, 13), (2468, 7, 13), (2475, 7, 13),
    (2482, 6, 13), (2488, 7, 13), (2495, 7, 13), (2502, 6, 13), (2508, 7, 13), (2515, 8, 13),
    (2523, 7, 13)] field_map_entries_20"
  "runs_end 2401 field_map_entries_20 = Some 2530"
  unfolding field_map_entries_20_def by (simp_all add: run_check runs_end.simps(2))

lemma field_map_entries_21_ok:
  "runs_match [
    (2530, 7, 13), (2537, 8, 13), (2545, 8, 13), (2553, 7, 13), (2560, 6, 13), (2566, 8, 13),
    (2574, 7, 13), (2581, 7, 13), (2588, 8, 13), (2596, 7, 13), (2603, 7, 13), (2610, 8, 13),
    (2618, 8, 13), (2626, 7, 13), (2633, 6, 13), (2639, 8, 13), (2647, 7, 13), (2654, 8, 13)] field_map_entries_21"
  "runs_end 2530 field_map_entries_21 = Some 2662"
  unfolding field_map_entries_21_def by (simp_all add: run_check runs_end.simps(2))

lemma field_map_entries_22_ok:
  "runs_match [
    (2662, 8, 13), (2670, 7, 13), (2677, 9, 13), (2686, 8, 13), (2694, 8, 13), (2702, 6, 13),
    (2708, 7, 13), (2715, 6, 13), (2721, 7, 13), (2728, 7, 13), (2735, 6, 13), (2741, 4, 12),
    (2745, 4, 12), (2749, 5, 12), (2754, 4, 12), (2758, 5, 12), (2763, 5, 12), (2768, 7, 14),
    (2775, 6, 14), (2781, 7, 14)] field_map_entries_22"
  "runs_end 2662 field_map_entries_22 = Some 2788"
  unfolding field_map_entries_22_def by (simp_all add: run_check runs_end.simps(2))

lemma field_map_entries_23_ok:
  "runs_match [
    (2788, 6, 14), (2794, 7, 14), (2801, 8, 14), (2809, 7, 14), (2816, 7, 14), (2823, 6, 14),
    (2829, 7, 14), (2836, 7, 14), (2843, 6, 14), (2849, 7, 14), (2856, 8, 14), (2864, 7, 14),
    (2871, 7, 14), (2878, 8, 14), (2886, 8, 14), (2894, 7, 14), (2901, 6, 14), (2907, 8, 14)] field_map_entries_23"
  "runs_end 2788 field_map_entries_23 = Some 2915"
  unfolding field_map_entries_23_def by (simp_all add: run_check runs_end.simps(2))

lemma field_map_entries_24_ok:
  "runs_match [
    (2915, 7, 14), (2922, 7, 14), (2929, 8, 14), (2937, 7, 14), (2944, 7, 14), (2951, 8, 14),
    (2959, 8, 14), (2967, 7, 14), (2974, 6, 14), (2980, 8, 14), (2988, 7, 14), (2995, 8, 14),
    (3003, 8, 14), (3011, 7, 14), (3018, 9, 14), (3027, 8, 14), (3035, 8, 14)] field_map_entries_24"
  "runs_end 2915 field_map_entries_24 = Some 3043"
  unfolding field_map_entries_24_def by (simp_all add: run_check runs_end.simps(2))

lemma field_map_entries_25_ok:
  "runs_match [
    (3043, 6, 14), (3049, 7, 14), (3056, 6, 14), (3062, 7, 14), (3069, 7, 14), (3076, 6, 14),
    (3082, 7, 14), (3089, 7, 14), (3096, 6, 14), (3102, 8, 14), (3110, 7, 14), (3117, 8, 14),
    (3125, 7, 14), (3132, 6, 14), (3138, 7, 14), (3145, 8, 14), (3153, 7, 14), (3160, 7, 14)] field_map_entries_25"
  "runs_end 3043 field_map_entries_25 = Some 3167"
  unfolding field_map_entries_25_def by (simp_all add: run_check runs_end.simps(2))

lemma field_map_entries_26_ok:
  "runs_match [
    (3167, 8, 14), (3175, 7, 14), (3182, 8, 14), (3190, 7, 14), (3197, 8, 14), (3205, 9, 14),
    (3214, 8, 14), (3222, 8, 14), (3230, 7, 14), (3237, 8, 14), (3245, 8, 14), (3253, 7, 14),
    (3260, 8, 14), (3268, 7, 14), (3275, 8, 14), (3283, 7, 14), (3290, 8, 14)] field_map_entries_26"
  "runs_end 3167 field_map_entries_26 = Some 3298"
  unfolding field_map_entries_26_def by (simp_all add: run_check runs_end.simps(2))

lemma field_map_entries_27_ok:
  "runs_match [
    (3298, 9, 14), (3307, 8, 14), (3315, 8, 14), (3323, 7, 14), (3330, 8, 14), (3338, 8, 14),
    (3346, 7, 14), (3353, 8, 14), (3361, 9, 14), (3370, 8, 14), (3378, 8, 14), (3386, 9, 14),
    (3395, 9, 14), (3404, 8, 14), (3412, 7, 14), (3419, 9, 14)] field_map_entries_27"
  "runs_end 3298 field_map_entries_27 = Some 3428"
  unfolding field_map_entries_27_def by (simp_all add: run_check runs_end.simps(2))

lemma field_map_entries_28_ok:
  "runs_match [
    (3428, 8, 14), (3436, 7, 14), (3443, 5, 13), (3448, 7, 15), (3455, 7, 15), (3462, 6, 15),
    (3468, 8, 15), (3476, 7, 15), (3483, 8, 15), (3491, 7, 15), (3498, 6, 15), (3504, 7, 15),
    (3511, 8, 15), (3519, 7, 15), (3526, 7, 15), (3533, 8, 15), (3541, 7, 15), (3548, 8, 15)] field_map_entries_28"
  "runs_end 3428 field_map_entries_28 = Some 3556"
  unfolding field_map_entries_28_def by (simp_all add: run_check runs_end.simps(2))

lemma field_map_entries_29_ok:
  "runs_match [
    (3556, 7, 15), (3563, 8, 15), (3571, 9, 15), (3580, 8, 15), (3588, 8, 15), (3596, 7, 15),
    (3603, 8, 15), (3611, 8, 15), (3619, 7, 15), (3626, 8, 15), (3634, 7, 15), (3641, 8, 15),
    (3649, 7, 15), (3656, 8, 15), (3664, 9, 15), (3673, 8, 15), (3681, 8, 15)] field_map_entries_29"
  "runs_end 3556 field_map_entries_29 = Some 3689"
  unfolding field_map_entries_29_def by (simp_all add: run_check runs_end.simps(2))

lemma field_map_entries_30_ok:
  "runs_match [
    (3689, 7, 15), (3696, 8, 15), (3704, 8, 15), (3712, 7, 15), (3719, 8, 15), (3727, 9, 15),
    (3736, 8, 15), (3744, 8, 15), (3752, 9, 15), (3761, 9, 15), (3770, 8, 15), (3778, 7, 15),
    (3785, 9, 15), (3794, 8, 15), (3802, 7, 15), (3809, 7, 15)] field_map_entries_30"
  "runs_end 3689 field_map_entries_30 = Some 3816"
  unfolding field_map_entries_30_def by (simp_all add: run_check runs_end.simps(2))

lemma field_map_entries_31_ok:
  "runs_match [
    (3816, 8, 15), (3824, 8, 15), (3832, 7, 15), (3839, 7, 15), (3846, 6, 15), (3852, 8, 15),
    (3860, 7, 15), (3867, 8, 15), (3875, 7, 15), (3882, 8, 15), (3890, 8, 15), (3898, 7, 15),
    (3905, 9, 15), (3914, 8, 15), (3922, 9, 15), (3931, 8, 15), (3939, 7, 15)] field_map_entries_31"
  "runs_end 3816 field_map_entries_31 = Some 3946"
  unfolding field_map_entries_31_def by (simp_all add: run_check runs_end.simps(2))

lemma field_map_entries_32_ok:
  "runs_match [
    (3946, 8, 15), (3954, 9, 15), (3963, 8, 15), (3971, 8, 15), (3979, 8, 15), (3987, 8, 15),
    (3995, 7, 15), (4002, 9, 15), (4011, 8, 15), (4019, 9, 15), (4028, 8, 15), (4036, 7, 15),
    (4043, 8, 15), (4051, 9, 15), (4060, 8, 15), (4068, 8, 15)] field_map_entries_32"
  "runs_end 3946 field_map_entries_32 = Some 4076"
  unfolding field_map_entries_32_def by (simp_all add: run_check runs_end.simps(2))

lemma field_map_entries_33_ok:
  "runs_match [
    (4076, 9, 15), (4085, 8, 15), (4093, 9, 15), (4102, 8, 15), (4110, 9, 15), (4119, 10, 15),
    (4129, 9, 15), (4138, 9, 15), (4147, 8, 15), (4155, 9, 15), (4164, 9, 15), (4173, 8, 15),
    (4181, 7, 16), (4188, 8, 16), (4196, 8, 16)] field_map_entries_33"
  "runs_end 4076 field_map_entries_33 = Some 4204"
  unfolding field_map_entries_33_def by (simp_all add: run_check runs_end.simps(2))

lemma field_map_entries_34_ok:
  "runs_match [
    (4204, 7, 16), (4211, 7, 16), (4218, 6, 16), (4224, 8, 16), (4232, 7, 16), (4239, 8, 16),
    (4247, 7, 16), (4254, 8, 16), (4262, 8, 16), (4270, 7, 16), (4277, 9, 16), (4286, 8, 16),
    (4294, 9, 16), (4303, 8, 16), (4311, 7, 16), (4318, 8, 16), (4326, 9, 16)] field_map_entries_34"
  "runs_end 4204 field_map_entries_34 = Some 4335"
  unfolding field_map_entries_34_def by (simp_all add: run_check runs_end.simps(2))

lemma field_map_entries_35_ok:
  "runs_match [
    (4335, 8, 16), (4343, 8, 16), (4351, 8, 16), (4359, 8, 16), (4367, 7, 16), (4374, 9, 16),
    (4383, 8, 16), (4391, 9, 16), (4400, 8, 16), (4408, 7, 16), (4415, 8, 16), (4423, 9, 16),
    (4432, 8, 16), (4440, 8, 16), (4448, 9, 16), (4457, 8, 16)] field_map_entries_35"
  "runs_end 4335 field_map_entries_35 = Some 4465"
  unfolding field_map_entries_35_def by (simp_all add: run_check runs_end.simps(2))

lemma field_map_entries_36_ok:
  "runs_match [
    (4465, 9, 16), (4474, 8, 16), (4482, 9, 16), (4491, 10, 16), (4501, 9, 16), (4510, 9, 16),
    (4519, 8, 16), (4527, 9, 16), (4536, 9, 16), (4545, 8, 16), (4553, 8, 16), (4561, 7, 16),
    (4568, 8, 16), (4576, 8, 16), (4584, 7, 16), (4591, 8, 16)] field_map_entries_36"
  "runs_end 4465 field_map_entries_36 = Some 4599"
  unfolding field_map_entries_36_def by (simp_all add: run_check runs_end.simps(2))

lemma field_map_entries_37_ok:
  "runs_match [
    (4599, 9, 16), (4608, 9, 16), (4617, 8, 16), (4625, 8, 16), (4633, 7, 16), (4640, 9, 16),
    (4649, 8, 16), (4657, 9, 16), (4666, 8, 16), (4674, 8, 16), (4682, 9, 16), (4691, 9, 16),
    (4700, 8, 16), (4708, 8, 16), (4716, 7, 16), (4723, 9, 16)] field_map_entries_37"
  "runs_end 4599 field_map_entries_37 = Some 4732"
  unfolding field_map_entries_37_def by (simp_all add: run_check runs_end.simps(2))

lemma field_map_entries_38_ok:
  "runs_match [
    (4732, 8, 16), (4740, 9, 16), (4749, 8, 16), (4757, 9, 16), (4766, 9, 16), (4775, 8, 16),
    (4783, 10, 16), (4793, 9, 16), (4802, 10, 16), (4812, 9, 16), (4821, 8, 16), (4829, 9, 16),
    (4838, 10, 16), (4848, 9, 16), (4857, 9, 16)] field_map_entries_38"
  "runs_end 4732 field_map_entries_38 = Some 4866"
  unfolding field_map_entries_38_def by (simp_all add: run_check runs_end.simps(2))

lemma field_map_entries_39_ok:
  "runs_match [
    (4866, 8, 17), (4874, 7, 17), (4881, 8, 17), (4889, 8, 17), (4897, 7, 17), (4904, 8, 17),
    (4912, 9, 17), (4921, 9, 17), (4930, 8, 17), (4938, 8, 17), (4946, 7, 17), (4953, 9, 17),
    (4962, 8, 17), (4970, 9, 17), (4979, 8, 17), (4987, 8, 17)] field_map_entries_39"
  "runs_end 4866 field_map_entries_39 = Some 4995"
  unfolding field_map_entries_39_def by (simp_all add: run_check runs_end.simps(2))

lemma field_map_entries_40_ok:
  "runs_match [
    (4995, 9, 17), (5004, 9, 17), (5013, 8, 17), (5021, 8, 17), (5029, 7, 17), (5036, 9, 17),
    (5045, 8, 17), (5053, 9, 17), (5062, 8, 17), (5070, 9, 17), (5079, 9, 17), (5088, 8, 17),
    (5096, 10, 17), (5106, 9, 17), (5115, 10, 17)] field_map_entries_40"
  "runs_end 4995 field_map_entries_40 = Some 5125"
  unfolding field_map_entries_40_def by (simp_all add: run_check runs_end.simps(2))

lemma field_map_entries_41_ok:
  "runs_match [
    (5125, 9, 17), (5134, 8, 17), (5142, 9, 17), (5151, 10, 17), (5161, 9, 17), (5170, 9, 17),
    (5179, 8, 17), (5187, 9, 17), (5196, 8, 17), (5204, 9, 17), (5213, 9, 17), (5222, 8, 17),
    (5230, 9, 17), (5239, 8, 17), (5247, 9, 17)] field_map_entries_41"
  "runs_end 5125 field_map_entries_41 = Some 5256"
  unfolding field_map_entries_41_def by (simp_all add: run_check runs_end.simps(2))

lemma field_map_entries_42_ok:
  "runs_match [
    (5256, 9, 17), (5265, 8, 17), (5273, 9, 17), (5282, 10, 17), (5292, 10, 17), (5302, 9, 17),
    (5311, 9, 17), (5320, 8, 17), (5328, 10, 17), (5338, 9, 17), (5347, 10, 17), (5357, 9, 17),
    (5366, 8, 18), (5374, 9, 18), (5383, 8, 18)] field_map_entries_42"
  "runs_end 5256 field_map_entries_42 = Some 5391"
  unfolding field_map_entries_42_def by (simp_all add: run_check runs_end.simps(2))

lemma field_map_entries_43_ok:
  "runs_match [
    (5391, 9, 18), (5400, 9, 18), (5409, 8, 18), (5417, 9, 18), (5426, 8, 18), (5434, 9, 18),
    (5443, 9, 18), (5452, 8, 18), (5460, 9, 18), (5469, 10, 18), (5479, 10, 18), (5489, 9, 18),
    (5498, 9, 18), (5507, 8, 18), (5515, 10, 18)] field_map_entries_43"
  "runs_end 5391 field_map_entries_43 = Some 5525"
  unfolding field_map_entries_43_def by (simp_all add: run_check runs_end.simps(2))

lemma field_map_entries_44_ok:
  "runs_match [
    (5525, 9, 18), (5534, 10, 18), (5544, 9, 18), (5553, 9, 18), (5562, 9, 18), (5571, 10, 18),
    (5581, 9, 18), (5590, 10, 18), (5600, 10, 18), (5610, 9, 18), (5619, 9, 19), (5628, 9, 19),
    (5637, 10, 19), (5647, 9, 19)] field_map_entries_44"
  "runs_end 5525 field_map_entries_44 = Some 5656"
  unfolding field_map_entries_44_def by (simp_all add: run_check runs_end.simps(2))

lemma field_map_entries_45_ok:
  "runs_match [
    (5656, 10, 19), (5666, 10, 19), (5676, 9, 19), (5685, 10, 19), (5695, 10, 20)] field_map_entries_45"
  "runs_end 5656 field_map_entries_45 = Some 5705"
  unfolding field_map_entries_45_def by (simp_all add: run_check runs_end.simps(2))

lemmas field_map_entries_ok =
  field_map_entries_0_ok(2) field_map_entries_1_ok(2) field_map_entries_2_ok(2)
  field_map_entries_3_ok(2) field_map_entries_4_ok(2) field_map_entries_5_ok(2)
  field_map_entries_6_ok(2) field_map_entries_7_ok(2) field_map_entries_8_ok(2)
  field_map_entries_9_ok(2) field_map_entries_10_ok(2) field_map_entries_11_ok(2)
  field_map_entries_12_ok(2) field_map_entries_13_ok(2) field_map_entries_14_ok(2)
  field_map_entries_15_ok(2) field_map_entries_16_ok(2) field_map_entries_17_ok(2)
  field_map_entries_18_ok(2) field_map_entries_19_ok(2) field_map_entries_20_ok(2)
  field_map_entries_21_ok(2) field_map_entries_22_ok(2) field_map_entries_23_ok(2)
  field_map_entries_24_ok(2) field_map_entries_25_ok(2) field_map_entries_26_ok(2)
  field_map_entries_27_ok(2) field_map_entries_28_ok(2) field_map_entries_29_ok(2)
  field_map_entries_30_ok(2) field_map_entries_31_ok(2) field_map_entries_32_ok(2)
  field_map_entries_33_ok(2) field_map_entries_34_ok(2) field_map_entries_35_ok(2)
  field_map_entries_36_ok(2) field_map_entries_37_ok(2) field_map_entries_38_ok(2)
  field_map_entries_39_ok(2) field_map_entries_40_ok(2) field_map_entries_41_ok(2)
  field_map_entries_42_ok(2) field_map_entries_43_ok(2) field_map_entries_44_ok(2)
  field_map_entries_45_ok(2)

lemma field_map_entry_rows_end: "runs_end 0 field_map_entry_rows = Some 5705"
  unfolding field_map_entry_rows_def by (simp add: field_map_entries_ok)

lemma field_map_entries_sub:
  "set field_map_entries_0 \<subseteq> set field_map_entry_rows"
  "set field_map_entries_1 \<subseteq> set field_map_entry_rows"
  "set field_map_entries_2 \<subseteq> set field_map_entry_rows"
  "set field_map_entries_3 \<subseteq> set field_map_entry_rows"
  "set field_map_entries_4 \<subseteq> set field_map_entry_rows"
  "set field_map_entries_5 \<subseteq> set field_map_entry_rows"
  "set field_map_entries_6 \<subseteq> set field_map_entry_rows"
  "set field_map_entries_7 \<subseteq> set field_map_entry_rows"
  "set field_map_entries_8 \<subseteq> set field_map_entry_rows"
  "set field_map_entries_9 \<subseteq> set field_map_entry_rows"
  "set field_map_entries_10 \<subseteq> set field_map_entry_rows"
  "set field_map_entries_11 \<subseteq> set field_map_entry_rows"
  "set field_map_entries_12 \<subseteq> set field_map_entry_rows"
  "set field_map_entries_13 \<subseteq> set field_map_entry_rows"
  "set field_map_entries_14 \<subseteq> set field_map_entry_rows"
  "set field_map_entries_15 \<subseteq> set field_map_entry_rows"
  "set field_map_entries_16 \<subseteq> set field_map_entry_rows"
  "set field_map_entries_17 \<subseteq> set field_map_entry_rows"
  "set field_map_entries_18 \<subseteq> set field_map_entry_rows"
  "set field_map_entries_19 \<subseteq> set field_map_entry_rows"
  "set field_map_entries_20 \<subseteq> set field_map_entry_rows"
  "set field_map_entries_21 \<subseteq> set field_map_entry_rows"
  "set field_map_entries_22 \<subseteq> set field_map_entry_rows"
  "set field_map_entries_23 \<subseteq> set field_map_entry_rows"
  "set field_map_entries_24 \<subseteq> set field_map_entry_rows"
  "set field_map_entries_25 \<subseteq> set field_map_entry_rows"
  "set field_map_entries_26 \<subseteq> set field_map_entry_rows"
  "set field_map_entries_27 \<subseteq> set field_map_entry_rows"
  "set field_map_entries_28 \<subseteq> set field_map_entry_rows"
  "set field_map_entries_29 \<subseteq> set field_map_entry_rows"
  "set field_map_entries_30 \<subseteq> set field_map_entry_rows"
  "set field_map_entries_31 \<subseteq> set field_map_entry_rows"
  "set field_map_entries_32 \<subseteq> set field_map_entry_rows"
  "set field_map_entries_33 \<subseteq> set field_map_entry_rows"
  "set field_map_entries_34 \<subseteq> set field_map_entry_rows"
  "set field_map_entries_35 \<subseteq> set field_map_entry_rows"
  "set field_map_entries_36 \<subseteq> set field_map_entry_rows"
  "set field_map_entries_37 \<subseteq> set field_map_entry_rows"
  "set field_map_entries_38 \<subseteq> set field_map_entry_rows"
  "set field_map_entries_39 \<subseteq> set field_map_entry_rows"
  "set field_map_entries_40 \<subseteq> set field_map_entry_rows"
  "set field_map_entries_41 \<subseteq> set field_map_entry_rows"
  "set field_map_entries_42 \<subseteq> set field_map_entry_rows"
  "set field_map_entries_43 \<subseteq> set field_map_entry_rows"
  "set field_map_entries_44 \<subseteq> set field_map_entry_rows"
  "set field_map_entries_45 \<subseteq> set field_map_entry_rows"
  by (auto simp: field_map_entry_rows_def)

lemma run_at_0:
  "run_at 0 1 1 \<and> run_at 1 1 2 \<and> run_at 2 1 2 \<and> run_at 3 1 1 \<and>
   run_at 4 1 2 \<and> run_at 5 2 2 \<and> run_at 7 2 2 \<and> run_at 9 1 2 \<and>
   run_at 10 1 2 \<and> run_at 11 2 2 \<and> run_at 13 1 3 \<and> run_at 14 2 3 \<and>
   run_at 16 1 3 \<and> run_at 17 1 3 \<and> run_at 18 2 3 \<and> run_at 20 2 3 \<and>
   run_at 22 2 3 \<and> run_at 24 3 3 \<and> run_at 27 1 3 \<and> run_at 28 2 3 \<and>
   run_at 30 1 1 \<and> run_at 31 2 3 \<and> run_at 33 2 2 \<and> run_at 35 2 3 \<and>
   run_at 37 1 2 \<and> run_at 38 1 2 \<and> run_at 39 2 2 \<and> run_at 41 2 3 \<and>
   run_at 43 1 4 \<and> run_at 44 2 4 \<and> run_at 46 1 2 \<and> run_at 47 1 2 \<and>
   run_at 48 2 2 \<and> run_at 50 2 4 \<and> run_at 52 2 4 \<and> run_at 54 1 4 \<and>
   run_at 55 2 4 \<and> run_at 57 2 4 \<and> run_at 59 1 2 \<and> run_at 60 3 4 \<and>
   run_at 63 2 2 \<and> run_at 65 2 4 \<and> run_at 67 1 4 \<and> run_at 68 2 3 \<and>
   run_at 70 1 3 \<and> run_at 71 2 4 \<and> run_at 73 2 3 \<and> run_at 75 2 3 \<and>
   run_at 77 2 3 \<and> run_at 79 3 5 \<and> run_at 82 3 5 \<and> run_at 85 3 5 \<and>
   run_at 88 1 1 \<and> run_at 89 3 5 \<and> run_at 92 3 5"
  using runs_match_run_at [OF field_map_entries_0_ok(1) field_map_entries_sub(1)] by simp

lemma run_at_1:
  "run_at 95 3 5 \<and> run_at 98 3 5 \<and> run_at 101 4 5 \<and> run_at 105 1 5 \<and>
   run_at 106 3 5 \<and> run_at 109 3 5 \<and> run_at 112 2 4 \<and> run_at 114 2 5 \<and>
   run_at 116 1 2 \<and> run_at 117 2 2 \<and> run_at 119 1 4 \<and> run_at 120 1 3 \<and>
   run_at 121 1 2 \<and> run_at 122 3 5 \<and> run_at 125 3 5 \<and> run_at 128 1 4 \<and>
   run_at 129 3 5 \<and> run_at 132 1 2 \<and> run_at 133 3 4 \<and> run_at 136 2 2 \<and>
   run_at 138 2 4 \<and> run_at 140 2 4 \<and> run_at 142 3 4 \<and> run_at 145 1 5 \<and>
   run_at 146 2 5 \<and> run_at 148 2 3 \<and> run_at 150 4 2 \<and> run_at 154 3 6 \<and>
   run_at 157 4 6 \<and> run_at 161 4 6 \<and> run_at 165 2 2 \<and> run_at 167 4 6 \<and>
   run_at 171 4 6 \<and> run_at 175 1 2 \<and> run_at 176 4 6 \<and> run_at 180 2 6 \<and>
   run_at 182 3 6 \<and> run_at 185 3 6 \<and> run_at 188 4 6 \<and> run_at 192 3 6 \<and>
   run_at 195 4 6 \<and> run_at 199 4 6"
  using runs_match_run_at [OF field_map_entries_1_ok(1) field_map_entries_sub(2)] by simp

lemma run_at_2:
  "run_at 203 1 5 \<and> run_at 204 1 4 \<and> run_at 205 2 5 \<and> run_at 207 1 2 \<and>
   run_at 208 2 4 \<and> run_at 210 2 2 \<and> run_at 212 2 5 \<and> run_at 214 2 4 \<and>
   run_at 216 4 6 \<and> run_at 220 4 6 \<and> run_at 224 4 6 \<and> run_at 228 4 6 \<and>
   run_at 232 3 5 \<and> run_at 235 3 5 \<and> run_at 238 2 5 \<and> run_at 240 3 5 \<and>
   run_at 243 1 4 \<and> run_at 244 2 4 \<and> run_at 246 4 7 \<and> run_at 250 5 7 \<and>
   run_at 255 3 7 \<and> run_at 258 4 7 \<and> run_at 262 3 7 \<and> run_at 265 4 7 \<and>
   run_at 269 4 7 \<and> run_at 273 4 7 \<and> run_at 277 4 7 \<and> run_at 281 4 7 \<and>
   run_at 285 4 7 \<and> run_at 289 3 7 \<and> run_at 292 5 7 \<and> run_at 297 4 7 \<and>
   run_at 301 4 7 \<and> run_at 305 5 7 \<and> run_at 310 4 7"
  using runs_match_run_at [OF field_map_entries_2_ok(1) field_map_entries_sub(3)] by simp

lemma run_at_3:
  "run_at 314 5 7 \<and> run_at 319 1 6 \<and> run_at 320 2 6 \<and> run_at 322 2 6 \<and>
   run_at 324 2 5 \<and> run_at 326 2 6 \<and> run_at 328 2 6 \<and> run_at 330 3 6 \<and>
   run_at 333 2 6 \<and> run_at 335 2 5 \<and> run_at 337 3 6 \<and> run_at 340 3 5 \<and>
   run_at 343 5 7 \<and> run_at 348 3 6 \<and> run_at 351 3 6 \<and> run_at 354 2 6 \<and>
   run_at 356 3 5 \<and> run_at 359 3 5 \<and> run_at 362 2 2 \<and> run_at 364 1 4 \<and>
   run_at 365 4 8 \<and> run_at 369 4 8 \<and> run_at 373 3 8 \<and> run_at 376 4 8 \<and>
   run_at 380 4 8 \<and> run_at 384 3 8 \<and> run_at 387 5 8 \<and> run_at 392 4 8 \<and>
   run_at 396 4 8 \<and> run_at 400 5 8 \<and> run_at 405 4 8 \<and> run_at 409 5 8 \<and>
   run_at 414 5 8 \<and> run_at 419 4 8 \<and> run_at 423 5 8"
  using runs_match_run_at [OF field_map_entries_3_ok(1) field_map_entries_sub(4)] by simp

lemma run_at_4:
  "run_at 428 4 8 \<and> run_at 432 4 8 \<and> run_at 436 5 8 \<and> run_at 441 5 8 \<and>
   run_at 446 4 8 \<and> run_at 450 3 8 \<and> run_at 453 5 8 \<and> run_at 458 4 8 \<and>
   run_at 462 5 8 \<and> run_at 467 5 8 \<and> run_at 472 4 8 \<and> run_at 476 6 8 \<and>
   run_at 482 5 8 \<and> run_at 487 5 8 \<and> run_at 492 1 7 \<and> run_at 493 2 7 \<and>
   run_at 495 2 7 \<and> run_at 497 2 7 \<and> run_at 499 3 7 \<and> run_at 502 2 7 \<and>
   run_at 504 3 7 \<and> run_at 507 3 7 \<and> run_at 510 3 7 \<and> run_at 513 2 7 \<and>
   run_at 515 3 7 \<and> run_at 518 3 7 \<and> run_at 521 3 6 \<and> run_at 524 3 7 \<and>
   run_at 527 3 7 \<and> run_at 530 4 7 \<and> run_at 534 3 7 \<and> run_at 537 2 6 \<and>
   run_at 539 3 6"
  using runs_match_run_at [OF field_map_entries_4_ok(1) field_map_entries_sub(5)] by simp

lemma run_at_5:
  "run_at 542 4 3 \<and> run_at 546 4 2 \<and> run_at 550 2 3 \<and> run_at 552 1 5 \<and>
   run_at 553 2 5 \<and> run_at 555 2 5 \<and> run_at 557 5 9 \<and> run_at 562 4 9 \<and>
   run_at 566 4 9 \<and> run_at 570 4 9 \<and> run_at 574 5 9 \<and> run_at 579 4 9 \<and>
   run_at 583 4 9 \<and> run_at 587 5 9 \<and> run_at 592 5 9 \<and> run_at 597 4 9 \<and>
   run_at 601 3 9 \<and> run_at 604 5 9 \<and> run_at 609 4 9 \<and> run_at 613 5 9 \<and>
   run_at 618 5 9 \<and> run_at 623 4 9 \<and> run_at 627 6 9 \<and> run_at 633 5 9 \<and>
   run_at 638 5 9 \<and> run_at 643 5 9 \<and> run_at 648 5 9 \<and> run_at 653 4 9 \<and>
   run_at 657 5 9"
  using runs_match_run_at [OF field_map_entries_5_ok(1) field_map_entries_sub(6)] by simp

lemma run_at_6:
  "run_at 662 4 9 \<and> run_at 666 5 9 \<and> run_at 671 6 9 \<and> run_at 677 5 9 \<and>
   run_at 682 5 9 \<and> run_at 687 4 9 \<and> run_at 691 5 9 \<and> run_at 696 5 9 \<and>
   run_at 701 4 9 \<and> run_at 705 5 9 \<and> run_at 710 6 9 \<and> run_at 716 5 9 \<and>
   run_at 721 5 9 \<and> run_at 726 6 9 \<and> run_at 732 6 9 \<and> run_at 738 5 9 \<and>
   run_at 743 4 9 \<and> run_at 747 6 9 \<and> run_at 753 5 9 \<and> run_at 758 2 8 \<and>
   run_at 760 2 8 \<and> run_at 762 3 8 \<and> run_at 765 3 8 \<and> run_at 768 3 8 \<and>
   run_at 771 2 8 \<and> run_at 773 3 8 \<and> run_at 776 3 8 \<and> run_at 779 3 8"
  using runs_match_run_at [OF field_map_entries_6_ok(1) field_map_entries_sub(7)] by simp

lemma run_at_7:
  "run_at 782 4 8 \<and> run_at 786 2 8 \<and> run_at 788 3 8 \<and> run_at 791 3 8 \<and>
   run_at 794 3 8 \<and> run_at 797 4 8 \<and> run_at 801 3 8 \<and> run_at 804 4 8 \<and>
   run_at 808 4 8 \<and> run_at 812 4 8 \<and> run_at 816 4 7 \<and> run_at 820 2 6 \<and>
   run_at 822 2 6 \<and> run_at 824 3 6 \<and> run_at 827 1 6 \<and> run_at 828 5 10 \<and>
   run_at 833 5 10 \<and> run_at 838 5 10 \<and> run_at 843 4 10 \<and> run_at 847 5 10 \<and>
   run_at 852 4 10 \<and> run_at 856 5 10 \<and> run_at 861 6 10 \<and> run_at 867 5 10 \<and>
   run_at 872 5 10 \<and> run_at 877 4 10 \<and> run_at 881 5 10 \<and> run_at 886 5 10 \<and>
   run_at 891 4 10 \<and> run_at 895 5 10"
  using runs_match_run_at [OF field_map_entries_7_ok(1) field_map_entries_sub(8)] by simp

lemma run_at_8:
  "run_at 900 6 10 \<and> run_at 906 5 10 \<and> run_at 911 5 10 \<and> run_at 916 6 10 \<and>
   run_at 922 6 10 \<and> run_at 928 5 10 \<and> run_at 933 4 10 \<and> run_at 937 6 10 \<and>
   run_at 943 5 10 \<and> run_at 948 6 10 \<and> run_at 954 5 10 \<and> run_at 959 6 10 \<and>
   run_at 965 6 10 \<and> run_at 971 6 10 \<and> run_at 977 5 10 \<and> run_at 982 5 10 \<and>
   run_at 987 4 10 \<and> run_at 991 6 10 \<and> run_at 997 5 10 \<and> run_at 1002 6 10 \<and>
   run_at 1008 5 10 \<and> run_at 1013 4 10 \<and> run_at 1017 5 10"
  using runs_match_run_at [OF field_map_entries_8_ok(1) field_map_entries_sub(9)] by simp

lemma run_at_9:
  "run_at 1022 6 10 \<and> run_at 1028 5 10 \<and> run_at 1033 5 10 \<and>
   run_at 1038 6 10 \<and> run_at 1044 5 10 \<and> run_at 1049 6 10 \<and>
   run_at 1055 5 10 \<and> run_at 1060 6 10 \<and> run_at 1066 7 10 \<and>
   run_at 1073 6 10 \<and> run_at 1079 6 10 \<and> run_at 1085 5 10 \<and>
   run_at 1090 6 10 \<and> run_at 1096 6 10 \<and> run_at 1102 5 10 \<and> run_at 1107 2 9 \<and>
   run_at 1109 3 9 \<and> run_at 1112 3 9 \<and> run_at 1115 3 9 \<and> run_at 1118 4 9 \<and>
   run_at 1122 3 9 \<and> run_at 1125 2 9 \<and> run_at 1127 3 9 \<and> run_at 1130 3 9 \<and>
   run_at 1133 4 9 \<and> run_at 1137 4 9 \<and> run_at 1141 3 9"
  using runs_match_run_at [OF field_map_entries_9_ok(1) field_map_entries_sub(10)] by simp

lemma run_at_10:
  "run_at 1144 3 9 \<and> run_at 1147 4 9 \<and> run_at 1151 4 9 \<and> run_at 1155 4 9 \<and>
   run_at 1159 3 9 \<and> run_at 1162 4 9 \<and> run_at 1166 4 9 \<and> run_at 1170 4 9 \<and>
   run_at 1174 5 9 \<and> run_at 1179 3 7 \<and> run_at 1182 2 7 \<and> run_at 1184 2 7 \<and>
   run_at 1186 6 11 \<and> run_at 1192 5 11 \<and> run_at 1197 6 11 \<and>
   run_at 1203 6 11 \<and> run_at 1209 6 11 \<and> run_at 1215 5 11 \<and>
   run_at 1220 5 11 \<and> run_at 1225 4 11 \<and> run_at 1229 6 11 \<and>
   run_at 1235 5 11 \<and> run_at 1240 6 11 \<and> run_at 1246 5 11 \<and>
   run_at 1251 4 11 \<and> run_at 1255 5 11 \<and> run_at 1260 6 11"
  using runs_match_run_at [OF field_map_entries_10_ok(1) field_map_entries_sub(11)] by simp

lemma run_at_11:
  "run_at 1266 5 11 \<and> run_at 1271 5 11 \<and> run_at 1276 6 11 \<and>
   run_at 1282 5 11 \<and> run_at 1287 6 11 \<and> run_at 1293 5 11 \<and>
   run_at 1298 6 11 \<and> run_at 1304 7 11 \<and> run_at 1311 6 11 \<and>
   run_at 1317 6 11 \<and> run_at 1323 5 11 \<and> run_at 1328 6 11 \<and>
   run_at 1334 6 11 \<and> run_at 1340 5 11 \<and> run_at 1345 6 11 \<and>
   run_at 1351 6 11 \<and> run_at 1357 5 11 \<and> run_at 1362 7 11 \<and>
   run_at 1369 6 11 \<and> run_at 1375 6 11 \<and> run_at 1381 7 11 \<and> run_at 1388 6 11"
  using runs_match_run_at [OF field_map_entries_11_ok(1) field_map_entries_sub(12)] by simp

lemma run_at_12:
  "run_at 1394 7 11 \<and> run_at 1401 7 11 \<and> run_at 1408 6 11 \<and>
   run_at 1414 7 11 \<and> run_at 1421 7 11 \<and> run_at 1428 5 11 \<and>
   run_at 1433 6 11 \<and> run_at 1439 6 11 \<and> run_at 1445 5 11 \<and>
   run_at 1450 5 11 \<and> run_at 1455 4 11 \<and> run_at 1459 6 11 \<and>
   run_at 1465 5 11 \<and> run_at 1470 6 11 \<and> run_at 1476 5 11 \<and>
   run_at 1481 6 11 \<and> run_at 1487 6 11 \<and> run_at 1493 5 11 \<and>
   run_at 1498 7 11 \<and> run_at 1505 6 11 \<and> run_at 1511 7 11"
  using runs_match_run_at [OF field_map_entries_12_ok(1) field_map_entries_sub(13)] by simp

lemma run_at_13:
  "run_at 1518 6 11 \<and> run_at 1524 5 11 \<and> run_at 1529 6 11 \<and>
   run_at 1535 7 11 \<and> run_at 1542 6 11 \<and> run_at 1548 6 11 \<and>
   run_at 1554 3 10 \<and> run_at 1557 2 10 \<and> run_at 1559 3 10 \<and>
   run_at 1562 3 10 \<and> run_at 1565 4 10 \<and> run_at 1569 4 10 \<and>
   run_at 1573 3 10 \<and> run_at 1576 4 10 \<and> run_at 1580 3 10 \<and>
   run_at 1583 4 10 \<and> run_at 1587 3 10 \<and> run_at 1590 4 10 \<and>
   run_at 1594 4 10 \<and> run_at 1598 4 10 \<and> run_at 1602 5 10 \<and>
   run_at 1607 4 10 \<and> run_at 1611 3 10 \<and> run_at 1614 4 10 \<and>
   run_at 1618 4 10 \<and> run_at 1622 5 10 \<and> run_at 1627 5 10 \<and> run_at 1632 3 8"
  using runs_match_run_at [OF field_map_entries_13_ok(1) field_map_entries_sub(14)] by simp

lemma run_at_14:
  "run_at 1635 6 12 \<and> run_at 1641 6 12 \<and> run_at 1647 5 12 \<and>
   run_at 1652 7 12 \<and> run_at 1659 6 12 \<and> run_at 1665 6 12 \<and>
   run_at 1671 7 12 \<and> run_at 1678 6 12 \<and> run_at 1684 7 12 \<and>
   run_at 1691 7 12 \<and> run_at 1698 6 12 \<and> run_at 1704 7 12 \<and>
   run_at 1711 7 12 \<and> run_at 1718 5 12 \<and> run_at 1723 6 12 \<and>
   run_at 1729 6 12 \<and> run_at 1735 5 12 \<and> run_at 1740 5 12 \<and>
   run_at 1745 4 12 \<and> run_at 1749 6 12 \<and> run_at 1755 5 12"
  using runs_match_run_at [OF field_map_entries_14_ok(1) field_map_entries_sub(15)] by simp

lemma run_at_15:
  "run_at 1760 6 12 \<and> run_at 1766 5 12 \<and> run_at 1771 6 12 \<and>
   run_at 1777 6 12 \<and> run_at 1783 5 12 \<and> run_at 1788 7 12 \<and>
   run_at 1795 6 12 \<and> run_at 1801 7 12 \<and> run_at 1808 6 12 \<and>
   run_at 1814 5 12 \<and> run_at 1819 6 12 \<and> run_at 1825 7 12 \<and>
   run_at 1832 6 12 \<and> run_at 1838 6 12 \<and> run_at 1844 6 12 \<and>
   run_at 1850 7 12 \<and> run_at 1857 6 12 \<and> run_at 1863 6 12 \<and>
   run_at 1869 7 12 \<and> run_at 1876 7 12 \<and> run_at 1883 6 12"
  using runs_match_run_at [OF field_map_entries_15_ok(1) field_map_entries_sub(16)] by simp

lemma run_at_16:
  "run_at 1889 5 12 \<and> run_at 1894 7 12 \<and> run_at 1901 6 12 \<and>
   run_at 1907 7 12 \<and> run_at 1914 7 12 \<and> run_at 1921 6 12 \<and>
   run_at 1927 8 12 \<and> run_at 1935 7 12 \<and> run_at 1942 7 12 \<and>
   run_at 1949 7 12 \<and> run_at 1956 7 12 \<and> run_at 1963 6 12 \<and>
   run_at 1969 8 12 \<and> run_at 1977 7 12 \<and> run_at 1984 7 12 \<and>
   run_at 1991 8 12 \<and> run_at 1999 7 12 \<and> run_at 2006 8 12 \<and> run_at 2014 6 12"
  using runs_match_run_at [OF field_map_entries_16_ok(1) field_map_entries_sub(17)] by simp

lemma run_at_17:
  "run_at 2020 5 12 \<and> run_at 2025 6 12 \<and> run_at 2031 6 12 \<and>
   run_at 2037 5 12 \<and> run_at 2042 6 12 \<and> run_at 2048 7 12 \<and>
   run_at 2055 7 12 \<and> run_at 2062 6 12 \<and> run_at 2068 6 12 \<and>
   run_at 2074 5 12 \<and> run_at 2079 7 12 \<and> run_at 2086 6 12 \<and>
   run_at 2092 7 12 \<and> run_at 2099 6 12 \<and> run_at 2105 3 11 \<and>
   run_at 2108 4 11 \<and> run_at 2112 3 11 \<and> run_at 2115 4 11 \<and>
   run_at 2119 4 11 \<and> run_at 2123 4 11 \<and> run_at 2127 3 11 \<and>
   run_at 2130 4 11 \<and> run_at 2134 4 11 \<and> run_at 2138 5 11"
  using runs_match_run_at [OF field_map_entries_17_ok(1) field_map_entries_sub(18)] by simp

lemma run_at_18:
  "run_at 2143 5 11 \<and> run_at 2148 4 11 \<and> run_at 2152 5 11 \<and>
   run_at 2157 4 11 \<and> run_at 2161 5 11 \<and> run_at 2166 6 13 \<and>
   run_at 2172 7 13 \<and> run_at 2179 6 13 \<and> run_at 2185 6 13 \<and>
   run_at 2191 7 13 \<and> run_at 2198 7 13 \<and> run_at 2205 6 13 \<and>
   run_at 2211 5 13 \<and> run_at 2216 7 13 \<and> run_at 2223 6 13 \<and>
   run_at 2229 7 13 \<and> run_at 2236 7 13 \<and> run_at 2243 6 13 \<and>
   run_at 2249 8 13 \<and> run_at 2257 7 13 \<and> run_at 2264 7 13"
  using runs_match_run_at [OF field_map_entries_18_ok(1) field_map_entries_sub(19)] by simp

lemma run_at_19:
  "run_at 2271 7 13 \<and> run_at 2278 7 13 \<and> run_at 2285 6 13 \<and>
   run_at 2291 8 13 \<and> run_at 2299 7 13 \<and> run_at 2306 7 13 \<and>
   run_at 2313 8 13 \<and> run_at 2321 7 13 \<and> run_at 2328 8 13 \<and>
   run_at 2336 6 13 \<and> run_at 2342 5 13 \<and> run_at 2347 6 13 \<and>
   run_at 2353 6 13 \<and> run_at 2359 5 13 \<and> run_at 2364 6 13 \<and>
   run_at 2370 7 13 \<and> run_at 2377 7 13 \<and> run_at 2384 6 13 \<and>
   run_at 2390 6 13 \<and> run_at 2396 5 13"
  using runs_match_run_at [OF field_map_entries_19_ok(1) field_map_entries_sub(20)] by simp

lemma run_at_20:
  "run_at 2401 7 13 \<and> run_at 2408 6 13 \<and> run_at 2414 7 13 \<and>
   run_at 2421 6 13 \<and> run_at 2427 7 13 \<and> run_at 2434 6 13 \<and>
   run_at 2440 7 13 \<and> run_at 2447 6 13 \<and> run_at 2453 7 13 \<and>
   run_at 2460 8 13 \<and> run_at 2468 7 13 \<and> run_at 2475 7 13 \<and>
   run_at 2482 6 13 \<and> run_at 2488 7 13 \<and> run_at 2495 7 13 \<and>
   run_at 2502 6 13 \<and> run_at 2508 7 13 \<and> run_at 2515 8 13 \<and> run_at 2523 7 13"
  using runs_match_run_at [OF field_map_entries_20_ok(1) field_map_entries_sub(21)] by simp

lemma run_at_21:
  "run_at 2530 7 13 \<and> run_at 2537 8 13 \<and> run_at 2545 8 13 \<and>
   run_at 2553 7 13 \<and> run_at 2560 6 13 \<and> run_at 2566 8 13 \<and>
   run_at 2574 7 13 \<and> run_at 2581 7 13 \<and> run_at 2588 8 13 \<and>
   run_at 2596 7 13 \<and> run_at 2603 7 13 \<and> run_at 2610 8 13 \<and>
   run_at 2618 8 13 \<and> run_at 2626 7 13 \<and> run_at 2633 6 13 \<and>
   run_at 2639 8 13 \<and> run_at 2647 7 13 \<and> run_at 2654 8 13"
  using runs_match_run_at [OF field_map_entries_21_ok(1) field_map_entries_sub(22)] by simp

lemma run_at_22:
  "run_at 2662 8 13 \<and> run_at 2670 7 13 \<and> run_at 2677 9 13 \<and>
   run_at 2686 8 13 \<and> run_at 2694 8 13 \<and> run_at 2702 6 13 \<and>
   run_at 2708 7 13 \<and> run_at 2715 6 13 \<and> run_at 2721 7 13 \<and>
   run_at 2728 7 13 \<and> run_at 2735 6 13 \<and> run_at 2741 4 12 \<and>
   run_at 2745 4 12 \<and> run_at 2749 5 12 \<and> run_at 2754 4 12 \<and>
   run_at 2758 5 12 \<and> run_at 2763 5 12 \<and> run_at 2768 7 14 \<and>
   run_at 2775 6 14 \<and> run_at 2781 7 14"
  using runs_match_run_at [OF field_map_entries_22_ok(1) field_map_entries_sub(23)] by simp

lemma run_at_23:
  "run_at 2788 6 14 \<and> run_at 2794 7 14 \<and> run_at 2801 8 14 \<and>
   run_at 2809 7 14 \<and> run_at 2816 7 14 \<and> run_at 2823 6 14 \<and>
   run_at 2829 7 14 \<and> run_at 2836 7 14 \<and> run_at 2843 6 14 \<and>
   run_at 2849 7 14 \<and> run_at 2856 8 14 \<and> run_at 2864 7 14 \<and>
   run_at 2871 7 14 \<and> run_at 2878 8 14 \<and> run_at 2886 8 14 \<and>
   run_at 2894 7 14 \<and> run_at 2901 6 14 \<and> run_at 2907 8 14"
  using runs_match_run_at [OF field_map_entries_23_ok(1) field_map_entries_sub(24)] by simp

lemma run_at_24:
  "run_at 2915 7 14 \<and> run_at 2922 7 14 \<and> run_at 2929 8 14 \<and>
   run_at 2937 7 14 \<and> run_at 2944 7 14 \<and> run_at 2951 8 14 \<and>
   run_at 2959 8 14 \<and> run_at 2967 7 14 \<and> run_at 2974 6 14 \<and>
   run_at 2980 8 14 \<and> run_at 2988 7 14 \<and> run_at 2995 8 14 \<and>
   run_at 3003 8 14 \<and> run_at 3011 7 14 \<and> run_at 3018 9 14 \<and>
   run_at 3027 8 14 \<and> run_at 3035 8 14"
  using runs_match_run_at [OF field_map_entries_24_ok(1) field_map_entries_sub(25)] by simp

lemma run_at_25:
  "run_at 3043 6 14 \<and> run_at 3049 7 14 \<and> run_at 3056 6 14 \<and>
   run_at 3062 7 14 \<and> run_at 3069 7 14 \<and> run_at 3076 6 14 \<and>
   run_at 3082 7 14 \<and> run_at 3089 7 14 \<and> run_at 3096 6 14 \<and>
   run_at 3102 8 14 \<and> run_at 3110 7 14 \<and> run_at 3117 8 14 \<and>
   run_at 3125 7 14 \<and> run_at 3132 6 14 \<and> run_at 3138 7 14 \<and>
   run_at 3145 8 14 \<and> run_at 3153 7 14 \<and> run_at 3160 7 14"
  using runs_match_run_at [OF field_map_entries_25_ok(1) field_map_entries_sub(26)] by simp

lemma run_at_26:
  "run_at 3167 8 14 \<and> run_at 3175 7 14 \<and> run_at 3182 8 14 \<and>
   run_at 3190 7 14 \<and> run_at 3197 8 14 \<and> run_at 3205 9 14 \<and>
   run_at 3214 8 14 \<and> run_at 3222 8 14 \<and> run_at 3230 7 14 \<and>
   run_at 3237 8 14 \<and> run_at 3245 8 14 \<and> run_at 3253 7 14 \<and>
   run_at 3260 8 14 \<and> run_at 3268 7 14 \<and> run_at 3275 8 14 \<and>
   run_at 3283 7 14 \<and> run_at 3290 8 14"
  using runs_match_run_at [OF field_map_entries_26_ok(1) field_map_entries_sub(27)] by simp

lemma run_at_27:
  "run_at 3298 9 14 \<and> run_at 3307 8 14 \<and> run_at 3315 8 14 \<and>
   run_at 3323 7 14 \<and> run_at 3330 8 14 \<and> run_at 3338 8 14 \<and>
   run_at 3346 7 14 \<and> run_at 3353 8 14 \<and> run_at 3361 9 14 \<and>
   run_at 3370 8 14 \<and> run_at 3378 8 14 \<and> run_at 3386 9 14 \<and>
   run_at 3395 9 14 \<and> run_at 3404 8 14 \<and> run_at 3412 7 14 \<and> run_at 3419 9 14"
  using runs_match_run_at [OF field_map_entries_27_ok(1) field_map_entries_sub(28)] by simp

lemma run_at_28:
  "run_at 3428 8 14 \<and> run_at 3436 7 14 \<and> run_at 3443 5 13 \<and>
   run_at 3448 7 15 \<and> run_at 3455 7 15 \<and> run_at 3462 6 15 \<and>
   run_at 3468 8 15 \<and> run_at 3476 7 15 \<and> run_at 3483 8 15 \<and>
   run_at 3491 7 15 \<and> run_at 3498 6 15 \<and> run_at 3504 7 15 \<and>
   run_at 3511 8 15 \<and> run_at 3519 7 15 \<and> run_at 3526 7 15 \<and>
   run_at 3533 8 15 \<and> run_at 3541 7 15 \<and> run_at 3548 8 15"
  using runs_match_run_at [OF field_map_entries_28_ok(1) field_map_entries_sub(29)] by simp

lemma run_at_29:
  "run_at 3556 7 15 \<and> run_at 3563 8 15 \<and> run_at 3571 9 15 \<and>
   run_at 3580 8 15 \<and> run_at 3588 8 15 \<and> run_at 3596 7 15 \<and>
   run_at 3603 8 15 \<and> run_at 3611 8 15 \<and> run_at 3619 7 15 \<and>
   run_at 3626 8 15 \<and> run_at 3634 7 15 \<and> run_at 3641 8 15 \<and>
   run_at 3649 7 15 \<and> run_at 3656 8 15 \<and> run_at 3664 9 15 \<and>
   run_at 3673 8 15 \<and> run_at 3681 8 15"
  using runs_match_run_at [OF field_map_entries_29_ok(1) field_map_entries_sub(30)] by simp

lemma run_at_30:
  "run_at 3689 7 15 \<and> run_at 3696 8 15 \<and> run_at 3704 8 15 \<and>
   run_at 3712 7 15 \<and> run_at 3719 8 15 \<and> run_at 3727 9 15 \<and>
   run_at 3736 8 15 \<and> run_at 3744 8 15 \<and> run_at 3752 9 15 \<and>
   run_at 3761 9 15 \<and> run_at 3770 8 15 \<and> run_at 3778 7 15 \<and>
   run_at 3785 9 15 \<and> run_at 3794 8 15 \<and> run_at 3802 7 15 \<and> run_at 3809 7 15"
  using runs_match_run_at [OF field_map_entries_30_ok(1) field_map_entries_sub(31)] by simp

lemma run_at_31:
  "run_at 3816 8 15 \<and> run_at 3824 8 15 \<and> run_at 3832 7 15 \<and>
   run_at 3839 7 15 \<and> run_at 3846 6 15 \<and> run_at 3852 8 15 \<and>
   run_at 3860 7 15 \<and> run_at 3867 8 15 \<and> run_at 3875 7 15 \<and>
   run_at 3882 8 15 \<and> run_at 3890 8 15 \<and> run_at 3898 7 15 \<and>
   run_at 3905 9 15 \<and> run_at 3914 8 15 \<and> run_at 3922 9 15 \<and>
   run_at 3931 8 15 \<and> run_at 3939 7 15"
  using runs_match_run_at [OF field_map_entries_31_ok(1) field_map_entries_sub(32)] by simp

lemma run_at_32:
  "run_at 3946 8 15 \<and> run_at 3954 9 15 \<and> run_at 3963 8 15 \<and>
   run_at 3971 8 15 \<and> run_at 3979 8 15 \<and> run_at 3987 8 15 \<and>
   run_at 3995 7 15 \<and> run_at 4002 9 15 \<and> run_at 4011 8 15 \<and>
   run_at 4019 9 15 \<and> run_at 4028 8 15 \<and> run_at 4036 7 15 \<and>
   run_at 4043 8 15 \<and> run_at 4051 9 15 \<and> run_at 4060 8 15 \<and> run_at 4068 8 15"
  using runs_match_run_at [OF field_map_entries_32_ok(1) field_map_entries_sub(33)] by simp

lemma run_at_33:
  "run_at 4076 9 15 \<and> run_at 4085 8 15 \<and> run_at 4093 9 15 \<and>
   run_at 4102 8 15 \<and> run_at 4110 9 15 \<and> run_at 4119 10 15 \<and>
   run_at 4129 9 15 \<and> run_at 4138 9 15 \<and> run_at 4147 8 15 \<and>
   run_at 4155 9 15 \<and> run_at 4164 9 15 \<and> run_at 4173 8 15 \<and>
   run_at 4181 7 16 \<and> run_at 4188 8 16 \<and> run_at 4196 8 16"
  using runs_match_run_at [OF field_map_entries_33_ok(1) field_map_entries_sub(34)] by simp

lemma run_at_34:
  "run_at 4204 7 16 \<and> run_at 4211 7 16 \<and> run_at 4218 6 16 \<and>
   run_at 4224 8 16 \<and> run_at 4232 7 16 \<and> run_at 4239 8 16 \<and>
   run_at 4247 7 16 \<and> run_at 4254 8 16 \<and> run_at 4262 8 16 \<and>
   run_at 4270 7 16 \<and> run_at 4277 9 16 \<and> run_at 4286 8 16 \<and>
   run_at 4294 9 16 \<and> run_at 4303 8 16 \<and> run_at 4311 7 16 \<and>
   run_at 4318 8 16 \<and> run_at 4326 9 16"
  using runs_match_run_at [OF field_map_entries_34_ok(1) field_map_entries_sub(35)] by simp

lemma run_at_35:
  "run_at 4335 8 16 \<and> run_at 4343 8 16 \<and> run_at 4351 8 16 \<and>
   run_at 4359 8 16 \<and> run_at 4367 7 16 \<and> run_at 4374 9 16 \<and>
   run_at 4383 8 16 \<and> run_at 4391 9 16 \<and> run_at 4400 8 16 \<and>
   run_at 4408 7 16 \<and> run_at 4415 8 16 \<and> run_at 4423 9 16 \<and>
   run_at 4432 8 16 \<and> run_at 4440 8 16 \<and> run_at 4448 9 16 \<and> run_at 4457 8 16"
  using runs_match_run_at [OF field_map_entries_35_ok(1) field_map_entries_sub(36)] by simp

lemma run_at_36:
  "run_at 4465 9 16 \<and> run_at 4474 8 16 \<and> run_at 4482 9 16 \<and>
   run_at 4491 10 16 \<and> run_at 4501 9 16 \<and> run_at 4510 9 16 \<and>
   run_at 4519 8 16 \<and> run_at 4527 9 16 \<and> run_at 4536 9 16 \<and>
   run_at 4545 8 16 \<and> run_at 4553 8 16 \<and> run_at 4561 7 16 \<and>
   run_at 4568 8 16 \<and> run_at 4576 8 16 \<and> run_at 4584 7 16 \<and> run_at 4591 8 16"
  using runs_match_run_at [OF field_map_entries_36_ok(1) field_map_entries_sub(37)] by simp

lemma run_at_37:
  "run_at 4599 9 16 \<and> run_at 4608 9 16 \<and> run_at 4617 8 16 \<and>
   run_at 4625 8 16 \<and> run_at 4633 7 16 \<and> run_at 4640 9 16 \<and>
   run_at 4649 8 16 \<and> run_at 4657 9 16 \<and> run_at 4666 8 16 \<and>
   run_at 4674 8 16 \<and> run_at 4682 9 16 \<and> run_at 4691 9 16 \<and>
   run_at 4700 8 16 \<and> run_at 4708 8 16 \<and> run_at 4716 7 16 \<and> run_at 4723 9 16"
  using runs_match_run_at [OF field_map_entries_37_ok(1) field_map_entries_sub(38)] by simp

lemma run_at_38:
  "run_at 4732 8 16 \<and> run_at 4740 9 16 \<and> run_at 4749 8 16 \<and>
   run_at 4757 9 16 \<and> run_at 4766 9 16 \<and> run_at 4775 8 16 \<and>
   run_at 4783 10 16 \<and> run_at 4793 9 16 \<and> run_at 4802 10 16 \<and>
   run_at 4812 9 16 \<and> run_at 4821 8 16 \<and> run_at 4829 9 16 \<and>
   run_at 4838 10 16 \<and> run_at 4848 9 16 \<and> run_at 4857 9 16"
  using runs_match_run_at [OF field_map_entries_38_ok(1) field_map_entries_sub(39)] by simp

lemma run_at_39:
  "run_at 4866 8 17 \<and> run_at 4874 7 17 \<and> run_at 4881 8 17 \<and>
   run_at 4889 8 17 \<and> run_at 4897 7 17 \<and> run_at 4904 8 17 \<and>
   run_at 4912 9 17 \<and> run_at 4921 9 17 \<and> run_at 4930 8 17 \<and>
   run_at 4938 8 17 \<and> run_at 4946 7 17 \<and> run_at 4953 9 17 \<and>
   run_at 4962 8 17 \<and> run_at 4970 9 17 \<and> run_at 4979 8 17 \<and> run_at 4987 8 17"
  using runs_match_run_at [OF field_map_entries_39_ok(1) field_map_entries_sub(40)] by simp

lemma run_at_40:
  "run_at 4995 9 17 \<and> run_at 5004 9 17 \<and> run_at 5013 8 17 \<and>
   run_at 5021 8 17 \<and> run_at 5029 7 17 \<and> run_at 5036 9 17 \<and>
   run_at 5045 8 17 \<and> run_at 5053 9 17 \<and> run_at 5062 8 17 \<and>
   run_at 5070 9 17 \<and> run_at 5079 9 17 \<and> run_at 5088 8 17 \<and>
   run_at 5096 10 17 \<and> run_at 5106 9 17 \<and> run_at 5115 10 17"
  using runs_match_run_at [OF field_map_entries_40_ok(1) field_map_entries_sub(41)] by simp

lemma run_at_41:
  "run_at 5125 9 17 \<and> run_at 5134 8 17 \<and> run_at 5142 9 17 \<and>
   run_at 5151 10 17 \<and> run_at 5161 9 17 \<and> run_at 5170 9 17 \<and>
   run_at 5179 8 17 \<and> run_at 5187 9 17 \<and> run_at 5196 8 17 \<and>
   run_at 5204 9 17 \<and> run_at 5213 9 17 \<and> run_at 5222 8 17 \<and>
   run_at 5230 9 17 \<and> run_at 5239 8 17 \<and> run_at 5247 9 17"
  using runs_match_run_at [OF field_map_entries_41_ok(1) field_map_entries_sub(42)] by simp

lemma run_at_42:
  "run_at 5256 9 17 \<and> run_at 5265 8 17 \<and> run_at 5273 9 17 \<and>
   run_at 5282 10 17 \<and> run_at 5292 10 17 \<and> run_at 5302 9 17 \<and>
   run_at 5311 9 17 \<and> run_at 5320 8 17 \<and> run_at 5328 10 17 \<and>
   run_at 5338 9 17 \<and> run_at 5347 10 17 \<and> run_at 5357 9 17 \<and>
   run_at 5366 8 18 \<and> run_at 5374 9 18 \<and> run_at 5383 8 18"
  using runs_match_run_at [OF field_map_entries_42_ok(1) field_map_entries_sub(43)] by simp

lemma run_at_43:
  "run_at 5391 9 18 \<and> run_at 5400 9 18 \<and> run_at 5409 8 18 \<and>
   run_at 5417 9 18 \<and> run_at 5426 8 18 \<and> run_at 5434 9 18 \<and>
   run_at 5443 9 18 \<and> run_at 5452 8 18 \<and> run_at 5460 9 18 \<and>
   run_at 5469 10 18 \<and> run_at 5479 10 18 \<and> run_at 5489 9 18 \<and>
   run_at 5498 9 18 \<and> run_at 5507 8 18 \<and> run_at 5515 10 18"
  using runs_match_run_at [OF field_map_entries_43_ok(1) field_map_entries_sub(44)] by simp

lemma run_at_44:
  "run_at 5525 9 18 \<and> run_at 5534 10 18 \<and> run_at 5544 9 18 \<and>
   run_at 5553 9 18 \<and> run_at 5562 9 18 \<and> run_at 5571 10 18 \<and>
   run_at 5581 9 18 \<and> run_at 5590 10 18 \<and> run_at 5600 10 18 \<and>
   run_at 5610 9 18 \<and> run_at 5619 9 19 \<and> run_at 5628 9 19 \<and>
   run_at 5637 10 19 \<and> run_at 5647 9 19"
  using runs_match_run_at [OF field_map_entries_44_ok(1) field_map_entries_sub(45)] by simp

lemma run_at_45:
  "run_at 5656 10 19 \<and> run_at 5666 10 19 \<and> run_at 5676 9 19 \<and>
   run_at 5685 10 19 \<and> run_at 5695 10 20"
  using runs_match_run_at [OF field_map_entries_45_ok(1) field_map_entries_sub(46)] by simp

lemmas run_at_facts =
  run_at_0 run_at_1 run_at_2 run_at_3 run_at_4 run_at_5 run_at_6 run_at_7 run_at_8 run_at_9
  run_at_10 run_at_11 run_at_12 run_at_13 run_at_14 run_at_15 run_at_16 run_at_17 run_at_18
  run_at_19 run_at_20 run_at_21 run_at_22 run_at_23 run_at_24 run_at_25 run_at_26 run_at_27
  run_at_28 run_at_29 run_at_30 run_at_31 run_at_32 run_at_33 run_at_34 run_at_35 run_at_36
  run_at_37 run_at_38 run_at_39 run_at_40 run_at_41 run_at_42 run_at_43 run_at_44 run_at_45

end
