(* ===== verification/Mojo_Production_Needs.thy ===== *)
theory Mojo_Production_Needs
  imports Mojo_Field_Runs
begin

text \<open>
  For each production, the number of children that its fields and its aliases need, read off the
  tables of \<^verbatim>\<open>Mojo_Fields\<close> and matched with them.
\<close>

section \<open>Productions with fields\<close>

text \<open>For each slice of the table, in blocks of 25 productions: the production, the index and the length
  of the slice, and the number of children its fields need.\<close>

type_synonym slice_need = "nat \<times> nat \<times> nat \<times> nat"

definition slice_needs_0 :: "slice_need list" where "slice_needs_0 = [
    (3, 0, 1, 1), (4, 1, 1, 2), (6, 2, 1, 2), (7, 3, 1, 1), (8, 4, 1, 2), (9, 5, 2, 2),
    (10, 7, 2, 2), (11, 9, 1, 2), (12, 10, 1, 2), (13, 11, 2, 2), (14, 13, 1, 3), (15, 14, 2, 3),
    (16, 16, 1, 3), (17, 17, 1, 3), (19, 18, 2, 3), (20, 20, 2, 3), (21, 22, 2, 3),
    (22, 24, 3, 3), (23, 27, 1, 3), (24, 28, 2, 3)]"

definition slice_needs_1 :: "slice_need list" where "slice_needs_1 = [
    (25, 30, 1, 1), (26, 31, 2, 3), (27, 33, 2, 2), (28, 35, 2, 3), (29, 37, 1, 2),
    (30, 38, 1, 2), (31, 39, 2, 2), (32, 41, 2, 3), (33, 43, 1, 4), (34, 44, 2, 4),
    (35, 46, 1, 2), (37, 47, 1, 2), (38, 48, 2, 2), (39, 50, 2, 4), (40, 52, 2, 4),
    (41, 54, 1, 4), (42, 55, 2, 4), (43, 57, 2, 4), (44, 59, 1, 2), (45, 60, 3, 4),
    (46, 63, 2, 2), (47, 65, 2, 4), (48, 17, 1, 3), (49, 67, 1, 4)]"

definition slice_needs_2 :: "slice_need list" where "slice_needs_2 = [
    (50, 18, 2, 3), (51, 68, 2, 3), (52, 70, 1, 3), (53, 71, 2, 4), (54, 73, 2, 3),
    (55, 73, 2, 3), (57, 75, 2, 3), (58, 77, 2, 3), (59, 79, 3, 5), (60, 82, 3, 5),
    (61, 85, 3, 5), (62, 88, 1, 1), (63, 89, 3, 5), (64, 92, 3, 5), (65, 95, 3, 5),
    (66, 98, 3, 5), (67, 101, 4, 5), (68, 105, 1, 5), (69, 106, 3, 5), (70, 109, 3, 5),
    (71, 112, 2, 4), (72, 114, 2, 5), (73, 116, 1, 2), (74, 117, 2, 2)]"

definition slice_needs_3 :: "slice_need list" where "slice_needs_3 = [
    (75, 119, 1, 4), (76, 120, 1, 3), (77, 121, 1, 2), (78, 122, 3, 5), (79, 125, 3, 5),
    (80, 128, 1, 4), (81, 129, 3, 5), (82, 18, 2, 3), (83, 18, 2, 3), (84, 132, 1, 2),
    (85, 132, 1, 2), (86, 133, 3, 4), (87, 136, 2, 2), (88, 133, 3, 4), (89, 138, 2, 4),
    (90, 140, 2, 4), (91, 142, 3, 4), (92, 145, 1, 5), (93, 146, 2, 5), (94, 148, 2, 3),
    (95, 150, 4, 2), (96, 148, 2, 3), (97, 154, 3, 6), (98, 157, 4, 6), (99, 161, 4, 6)]"

definition slice_needs_4 :: "slice_need list" where "slice_needs_4 = [
    (100, 165, 2, 2), (101, 167, 4, 6), (102, 171, 4, 6), (103, 175, 1, 2), (104, 176, 4, 6),
    (105, 180, 2, 6), (106, 182, 3, 6), (107, 185, 3, 6), (108, 188, 4, 6), (110, 192, 3, 6),
    (111, 195, 4, 6), (112, 199, 4, 6), (113, 203, 1, 5), (114, 204, 1, 4), (115, 205, 2, 5),
    (116, 207, 1, 2), (117, 208, 2, 4), (118, 210, 2, 2), (119, 212, 2, 5), (120, 214, 2, 4),
    (121, 216, 4, 6), (122, 220, 4, 6), (123, 224, 4, 6), (124, 228, 4, 6)]"

definition slice_needs_5 :: "slice_need list" where "slice_needs_5 = [
    (125, 232, 3, 5), (126, 235, 3, 5), (127, 238, 2, 5), (128, 240, 3, 5), (129, 128, 1, 4),
    (130, 243, 1, 4), (131, 243, 1, 4), (132, 244, 2, 4), (133, 246, 4, 7), (134, 250, 5, 7),
    (135, 255, 3, 7), (136, 258, 4, 7), (137, 262, 3, 7), (138, 265, 4, 7), (139, 269, 4, 7),
    (140, 273, 4, 7), (141, 277, 4, 7), (143, 281, 4, 7), (144, 285, 4, 7), (145, 289, 3, 7),
    (146, 292, 5, 7), (147, 297, 4, 7), (148, 301, 4, 7), (149, 305, 5, 7)]"

definition slice_needs_6 :: "slice_need list" where "slice_needs_6 = [
    (150, 310, 4, 7), (151, 314, 5, 7), (152, 319, 1, 6), (153, 320, 2, 6), (154, 322, 2, 6),
    (155, 324, 2, 5), (156, 326, 2, 6), (157, 328, 2, 6), (158, 330, 3, 6), (159, 333, 2, 6),
    (160, 335, 2, 5), (161, 337, 3, 6), (162, 340, 3, 5), (163, 343, 5, 7), (164, 348, 3, 6),
    (165, 351, 3, 6), (166, 354, 2, 6), (167, 356, 3, 5), (168, 359, 3, 5), (169, 359, 3, 5),
    (170, 362, 2, 2), (171, 364, 1, 4), (172, 365, 4, 8), (173, 369, 4, 8), (174, 373, 3, 8)]"

definition slice_needs_7 :: "slice_need list" where "slice_needs_7 = [
    (175, 376, 4, 8), (176, 380, 4, 8), (177, 384, 3, 8), (178, 387, 5, 8), (179, 392, 4, 8),
    (180, 396, 4, 8), (181, 400, 5, 8), (182, 405, 4, 8), (183, 409, 5, 8), (184, 414, 5, 8),
    (185, 419, 4, 8), (186, 423, 5, 8), (187, 428, 4, 8), (188, 432, 4, 8), (189, 436, 5, 8),
    (190, 441, 5, 8), (191, 446, 4, 8), (192, 450, 3, 8), (193, 453, 5, 8), (194, 458, 4, 8),
    (195, 462, 5, 8), (196, 467, 5, 8), (197, 472, 4, 8), (198, 476, 6, 8), (199, 482, 5, 8)]"

definition slice_needs_8 :: "slice_need list" where "slice_needs_8 = [
    (200, 487, 5, 8), (201, 492, 1, 7), (202, 493, 2, 7), (203, 495, 2, 7), (204, 497, 2, 7),
    (205, 499, 3, 7), (206, 502, 2, 7), (207, 504, 3, 7), (208, 507, 3, 7), (209, 510, 3, 7),
    (210, 513, 2, 7), (211, 515, 3, 7), (212, 518, 3, 7), (213, 521, 3, 6), (214, 524, 3, 7),
    (215, 527, 3, 7), (216, 530, 4, 7), (217, 534, 3, 7), (218, 537, 2, 6), (219, 539, 3, 6),
    (220, 542, 4, 3), (221, 546, 4, 2), (222, 550, 2, 3), (223, 552, 1, 5), (224, 553, 2, 5)]"

definition slice_needs_9 :: "slice_need list" where "slice_needs_9 = [
    (225, 555, 2, 5), (226, 557, 5, 9), (227, 562, 4, 9), (228, 566, 4, 9), (229, 570, 4, 9),
    (230, 574, 5, 9), (231, 579, 4, 9), (232, 583, 4, 9), (233, 587, 5, 9), (234, 592, 5, 9),
    (235, 597, 4, 9), (236, 601, 3, 9), (237, 604, 5, 9), (238, 609, 4, 9), (239, 613, 5, 9),
    (240, 618, 5, 9), (241, 623, 4, 9), (242, 627, 6, 9), (243, 633, 5, 9), (244, 638, 5, 9),
    (246, 643, 5, 9), (247, 648, 5, 9), (248, 653, 4, 9), (249, 657, 5, 9)]"

definition slice_needs_10 :: "slice_need list" where "slice_needs_10 = [
    (250, 662, 4, 9), (251, 666, 5, 9), (252, 671, 6, 9), (253, 677, 5, 9), (254, 682, 5, 9),
    (255, 687, 4, 9), (256, 691, 5, 9), (257, 696, 5, 9), (258, 701, 4, 9), (259, 705, 5, 9),
    (260, 710, 6, 9), (261, 716, 5, 9), (262, 721, 5, 9), (263, 726, 6, 9), (264, 732, 6, 9),
    (265, 738, 5, 9), (266, 743, 4, 9), (267, 747, 6, 9), (268, 753, 5, 9), (269, 758, 2, 8),
    (270, 760, 2, 8), (271, 762, 3, 8), (272, 765, 3, 8), (273, 768, 3, 8), (274, 771, 2, 8)]"

definition slice_needs_11 :: "slice_need list" where "slice_needs_11 = [
    (275, 773, 3, 8), (276, 776, 3, 8), (277, 779, 3, 8), (278, 782, 4, 8), (279, 786, 2, 8),
    (280, 788, 3, 8), (281, 791, 3, 8), (282, 794, 3, 8), (283, 797, 4, 8), (284, 801, 3, 8),
    (285, 804, 4, 8), (286, 808, 4, 8), (287, 812, 4, 8), (288, 816, 4, 7), (289, 820, 2, 6),
    (290, 822, 2, 6), (291, 824, 3, 6), (292, 827, 1, 6), (293, 828, 5, 10), (294, 833, 5, 10),
    (295, 838, 5, 10), (296, 843, 4, 10), (297, 847, 5, 10), (298, 852, 4, 10), (299, 856, 5, 10)]"

definition slice_needs_12 :: "slice_need list" where "slice_needs_12 = [
    (300, 861, 6, 10), (301, 867, 5, 10), (302, 872, 5, 10), (303, 877, 4, 10),
    (304, 881, 5, 10), (305, 886, 5, 10), (306, 891, 4, 10), (307, 895, 5, 10),
    (308, 900, 6, 10), (309, 906, 5, 10), (310, 911, 5, 10), (311, 916, 6, 10),
    (312, 922, 6, 10), (313, 928, 5, 10), (314, 933, 4, 10), (315, 937, 6, 10),
    (316, 943, 5, 10), (317, 948, 6, 10), (318, 954, 5, 10), (319, 959, 6, 10),
    (320, 965, 6, 10), (321, 971, 6, 10), (322, 977, 5, 10), (323, 982, 5, 10), (324, 987, 4, 10)]"

definition slice_needs_13 :: "slice_need list" where "slice_needs_13 = [
    (325, 991, 6, 10), (326, 997, 5, 10), (327, 1002, 6, 10), (328, 1008, 5, 10),
    (329, 1013, 4, 10), (330, 1017, 5, 10), (331, 1022, 6, 10), (332, 1028, 5, 10),
    (333, 1033, 5, 10), (334, 1038, 6, 10), (335, 1044, 5, 10), (336, 1049, 6, 10),
    (337, 1055, 5, 10), (338, 1060, 6, 10), (339, 1066, 7, 10), (340, 1073, 6, 10),
    (341, 1079, 6, 10), (342, 1085, 5, 10), (343, 1090, 6, 10), (344, 1096, 6, 10),
    (345, 1102, 5, 10), (346, 1107, 2, 9), (347, 1109, 3, 9), (348, 1112, 3, 9), (349, 1115, 3, 9)]"

definition slice_needs_14 :: "slice_need list" where "slice_needs_14 = [
    (350, 1118, 4, 9), (351, 1122, 3, 9), (352, 1125, 2, 9), (353, 1127, 3, 9),
    (354, 1130, 3, 9), (355, 1133, 4, 9), (356, 1137, 4, 9), (357, 1141, 3, 9),
    (358, 1144, 3, 9), (359, 1147, 4, 9), (360, 1151, 4, 9), (361, 1155, 4, 9),
    (362, 1159, 3, 9), (363, 1162, 4, 9), (364, 1166, 4, 9), (365, 1170, 4, 9),
    (366, 1174, 5, 9), (367, 1179, 3, 7), (368, 1182, 2, 7), (369, 1184, 2, 7),
    (370, 1186, 6, 11), (371, 1192, 5, 11), (372, 1197, 6, 11), (373, 1203, 6, 11),
    (374, 1209, 6, 11)]"

definition slice_needs_15 :: "slice_need list" where "slice_needs_15 = [
    (375, 1215, 5, 11), (376, 1220, 5, 11), (377, 1225, 4, 11), (378, 1229, 6, 11),
    (379, 1235, 5, 11), (380, 1240, 6, 11), (381, 1246, 5, 11), (382, 1251, 4, 11),
    (383, 1255, 5, 11), (384, 1260, 6, 11), (385, 1266, 5, 11), (386, 1271, 5, 11),
    (387, 1276, 6, 11), (388, 1282, 5, 11), (389, 1287, 6, 11), (390, 1293, 5, 11),
    (391, 1298, 6, 11), (392, 1304, 7, 11), (393, 1311, 6, 11), (394, 1317, 6, 11),
    (395, 1323, 5, 11), (396, 1328, 6, 11), (397, 1334, 6, 11), (398, 1340, 5, 11),
    (399, 1345, 6, 11)]"

definition slice_needs_16 :: "slice_need list" where "slice_needs_16 = [
    (400, 1351, 6, 11), (401, 1357, 5, 11), (402, 1362, 7, 11), (403, 1369, 6, 11),
    (404, 1375, 6, 11), (405, 1381, 7, 11), (406, 1388, 6, 11), (407, 1394, 7, 11),
    (408, 1401, 7, 11), (409, 1408, 6, 11), (410, 1414, 7, 11), (411, 1421, 7, 11),
    (412, 1428, 5, 11), (413, 1433, 6, 11), (414, 1439, 6, 11), (415, 1445, 5, 11),
    (416, 1450, 5, 11), (417, 1455, 4, 11), (418, 1459, 6, 11), (419, 1465, 5, 11),
    (420, 1470, 6, 11), (421, 1476, 5, 11), (422, 1481, 6, 11), (423, 1487, 6, 11),
    (424, 1493, 5, 11)]"

definition slice_needs_17 :: "slice_need list" where "slice_needs_17 = [
    (425, 1498, 7, 11), (426, 1505, 6, 11), (427, 1511, 7, 11), (428, 1518, 6, 11),
    (429, 1524, 5, 11), (430, 1529, 6, 11), (431, 1535, 7, 11), (432, 1542, 6, 11),
    (433, 1548, 6, 11), (434, 1554, 3, 10), (435, 1557, 2, 10), (436, 1559, 3, 10),
    (437, 1562, 3, 10), (438, 1565, 4, 10), (439, 1569, 4, 10), (440, 1573, 3, 10),
    (441, 1576, 4, 10), (442, 1580, 3, 10), (443, 1583, 4, 10), (444, 1587, 3, 10),
    (445, 1590, 4, 10), (446, 1594, 4, 10), (447, 1598, 4, 10), (448, 1602, 5, 10),
    (449, 1607, 4, 10)]"

definition slice_needs_18 :: "slice_need list" where "slice_needs_18 = [
    (450, 1611, 3, 10), (451, 1614, 4, 10), (452, 1618, 4, 10), (453, 1622, 5, 10),
    (454, 1627, 5, 10), (455, 1632, 3, 8), (456, 1635, 6, 12), (457, 1641, 6, 12),
    (458, 1647, 5, 12), (459, 1652, 7, 12), (460, 1659, 6, 12), (461, 1665, 6, 12),
    (462, 1671, 7, 12), (463, 1678, 6, 12), (464, 1684, 7, 12), (465, 1691, 7, 12),
    (466, 1698, 6, 12), (467, 1704, 7, 12), (468, 1711, 7, 12), (469, 1718, 5, 12),
    (470, 1723, 6, 12), (471, 1729, 6, 12), (472, 1735, 5, 12), (473, 1740, 5, 12),
    (474, 1745, 4, 12)]"

definition slice_needs_19 :: "slice_need list" where "slice_needs_19 = [
    (475, 1749, 6, 12), (476, 1755, 5, 12), (477, 1760, 6, 12), (478, 1766, 5, 12),
    (479, 1771, 6, 12), (480, 1777, 6, 12), (481, 1783, 5, 12), (482, 1788, 7, 12),
    (483, 1795, 6, 12), (484, 1801, 7, 12), (485, 1808, 6, 12), (486, 1814, 5, 12),
    (487, 1819, 6, 12), (488, 1825, 7, 12), (489, 1832, 6, 12), (490, 1838, 6, 12),
    (491, 1844, 6, 12), (492, 1850, 7, 12), (493, 1857, 6, 12), (494, 1863, 6, 12),
    (495, 1869, 7, 12), (496, 1876, 7, 12), (497, 1883, 6, 12), (498, 1889, 5, 12),
    (499, 1894, 7, 12)]"

definition slice_needs_20 :: "slice_need list" where "slice_needs_20 = [
    (500, 1901, 6, 12), (501, 1907, 7, 12), (502, 1914, 7, 12), (503, 1921, 6, 12),
    (504, 1927, 8, 12), (505, 1935, 7, 12), (506, 1942, 7, 12), (507, 1949, 7, 12),
    (508, 1956, 7, 12), (509, 1963, 6, 12), (510, 1969, 8, 12), (511, 1977, 7, 12),
    (512, 1984, 7, 12), (513, 1991, 8, 12), (514, 1999, 7, 12), (515, 2006, 8, 12),
    (516, 2014, 6, 12), (517, 2020, 5, 12), (518, 2025, 6, 12), (519, 2031, 6, 12),
    (520, 2037, 5, 12), (521, 2042, 6, 12), (522, 2048, 7, 12), (523, 2055, 7, 12),
    (524, 2062, 6, 12)]"

definition slice_needs_21 :: "slice_need list" where "slice_needs_21 = [
    (525, 2068, 6, 12), (526, 2074, 5, 12), (527, 2079, 7, 12), (528, 2086, 6, 12),
    (529, 2092, 7, 12), (530, 2099, 6, 12), (531, 2105, 3, 11), (532, 2108, 4, 11),
    (533, 2112, 3, 11), (534, 2115, 4, 11), (535, 2119, 4, 11), (536, 2123, 4, 11),
    (537, 2127, 3, 11), (538, 2130, 4, 11), (539, 2134, 4, 11), (540, 2138, 5, 11),
    (541, 2143, 5, 11), (542, 2148, 4, 11), (543, 2152, 5, 11), (544, 2157, 4, 11),
    (545, 2161, 5, 11), (546, 2166, 6, 13), (547, 2172, 7, 13), (548, 2179, 6, 13),
    (549, 2185, 6, 13)]"

definition slice_needs_22 :: "slice_need list" where "slice_needs_22 = [
    (550, 2191, 7, 13), (551, 2198, 7, 13), (552, 2205, 6, 13), (553, 2211, 5, 13),
    (554, 2216, 7, 13), (555, 2223, 6, 13), (556, 2229, 7, 13), (557, 2236, 7, 13),
    (558, 2243, 6, 13), (559, 2249, 8, 13), (560, 2257, 7, 13), (561, 2264, 7, 13),
    (562, 2271, 7, 13), (563, 2278, 7, 13), (564, 2285, 6, 13), (565, 2291, 8, 13),
    (566, 2299, 7, 13), (567, 2306, 7, 13), (568, 2313, 8, 13), (569, 2321, 7, 13),
    (570, 2328, 8, 13), (571, 2336, 6, 13), (572, 2342, 5, 13), (573, 2347, 6, 13),
    (574, 2353, 6, 13)]"

definition slice_needs_23 :: "slice_need list" where "slice_needs_23 = [
    (575, 2359, 5, 13), (576, 2364, 6, 13), (577, 2370, 7, 13), (578, 2377, 7, 13),
    (579, 2384, 6, 13), (580, 2390, 6, 13), (581, 2396, 5, 13), (582, 2401, 7, 13),
    (583, 2408, 6, 13), (584, 2414, 7, 13), (585, 2421, 6, 13), (586, 2427, 7, 13),
    (587, 2434, 6, 13), (588, 2440, 7, 13), (589, 2447, 6, 13), (590, 2453, 7, 13),
    (591, 2460, 8, 13), (592, 2468, 7, 13), (593, 2475, 7, 13), (594, 2482, 6, 13),
    (595, 2488, 7, 13), (596, 2495, 7, 13), (597, 2502, 6, 13), (598, 2508, 7, 13),
    (599, 2515, 8, 13)]"

definition slice_needs_24 :: "slice_need list" where "slice_needs_24 = [
    (600, 2523, 7, 13), (601, 2530, 7, 13), (602, 2537, 8, 13), (603, 2545, 8, 13),
    (604, 2553, 7, 13), (605, 2560, 6, 13), (606, 2566, 8, 13), (607, 2574, 7, 13),
    (608, 2581, 7, 13), (609, 2588, 8, 13), (610, 2596, 7, 13), (611, 2603, 7, 13),
    (612, 2610, 8, 13), (613, 2618, 8, 13), (614, 2626, 7, 13), (615, 2633, 6, 13),
    (616, 2639, 8, 13), (617, 2647, 7, 13), (618, 2654, 8, 13), (619, 2662, 8, 13),
    (620, 2670, 7, 13), (621, 2677, 9, 13), (622, 2686, 8, 13), (623, 2694, 8, 13),
    (624, 2702, 6, 13)]"

definition slice_needs_25 :: "slice_need list" where "slice_needs_25 = [
    (625, 2708, 7, 13), (626, 2715, 6, 13), (627, 2721, 7, 13), (628, 2728, 7, 13),
    (629, 2735, 6, 13), (630, 2741, 4, 12), (631, 2745, 4, 12), (632, 2749, 5, 12),
    (633, 2754, 4, 12), (634, 2758, 5, 12), (635, 2763, 5, 12), (636, 2768, 7, 14),
    (637, 2775, 6, 14), (638, 2781, 7, 14), (639, 2788, 6, 14), (640, 2794, 7, 14),
    (641, 2801, 8, 14), (642, 2809, 7, 14), (643, 2816, 7, 14), (644, 2823, 6, 14),
    (645, 2829, 7, 14), (646, 2836, 7, 14), (647, 2843, 6, 14), (648, 2849, 7, 14),
    (649, 2856, 8, 14)]"

definition slice_needs_26 :: "slice_need list" where "slice_needs_26 = [
    (650, 2864, 7, 14), (651, 2871, 7, 14), (652, 2878, 8, 14), (653, 2886, 8, 14),
    (654, 2894, 7, 14), (655, 2901, 6, 14), (656, 2907, 8, 14), (657, 2915, 7, 14),
    (658, 2922, 7, 14), (659, 2929, 8, 14), (660, 2937, 7, 14), (661, 2944, 7, 14),
    (662, 2951, 8, 14), (663, 2959, 8, 14), (664, 2967, 7, 14), (665, 2974, 6, 14),
    (666, 2980, 8, 14), (667, 2988, 7, 14), (668, 2995, 8, 14), (669, 3003, 8, 14),
    (670, 3011, 7, 14), (671, 3018, 9, 14), (672, 3027, 8, 14), (673, 3035, 8, 14),
    (674, 3043, 6, 14)]"

definition slice_needs_27 :: "slice_need list" where "slice_needs_27 = [
    (675, 3049, 7, 14), (676, 3056, 6, 14), (677, 3062, 7, 14), (678, 3069, 7, 14),
    (679, 3076, 6, 14), (680, 3082, 7, 14), (681, 3089, 7, 14), (682, 3096, 6, 14),
    (683, 3102, 8, 14), (684, 3110, 7, 14), (685, 3117, 8, 14), (686, 3125, 7, 14),
    (687, 3132, 6, 14), (688, 3138, 7, 14), (689, 3145, 8, 14), (690, 3153, 7, 14),
    (691, 3160, 7, 14), (692, 3167, 8, 14), (693, 3175, 7, 14), (694, 3182, 8, 14),
    (695, 3190, 7, 14), (696, 3197, 8, 14), (697, 3205, 9, 14), (698, 3214, 8, 14),
    (699, 3222, 8, 14)]"

definition slice_needs_28 :: "slice_need list" where "slice_needs_28 = [
    (700, 3230, 7, 14), (701, 3237, 8, 14), (702, 3245, 8, 14), (703, 3253, 7, 14),
    (704, 3260, 8, 14), (705, 3268, 7, 14), (706, 3275, 8, 14), (707, 3283, 7, 14),
    (708, 3290, 8, 14), (709, 3298, 9, 14), (710, 3307, 8, 14), (711, 3315, 8, 14),
    (712, 3323, 7, 14), (713, 3330, 8, 14), (714, 3338, 8, 14), (715, 3346, 7, 14),
    (716, 3353, 8, 14), (717, 3361, 9, 14), (718, 3370, 8, 14), (719, 3378, 8, 14),
    (720, 3386, 9, 14), (721, 3395, 9, 14), (722, 3404, 8, 14), (723, 3412, 7, 14),
    (724, 3419, 9, 14)]"

definition slice_needs_29 :: "slice_need list" where "slice_needs_29 = [
    (725, 3428, 8, 14), (726, 3436, 7, 14), (727, 3443, 5, 13), (728, 3448, 7, 15),
    (729, 3455, 7, 15), (730, 3462, 6, 15), (731, 3468, 8, 15), (732, 3476, 7, 15),
    (733, 3483, 8, 15), (734, 3491, 7, 15), (735, 3498, 6, 15), (736, 3504, 7, 15),
    (737, 3511, 8, 15), (738, 3519, 7, 15), (739, 3526, 7, 15), (740, 3533, 8, 15),
    (741, 3541, 7, 15), (742, 3548, 8, 15), (743, 3556, 7, 15), (744, 3563, 8, 15),
    (745, 3571, 9, 15), (746, 3580, 8, 15), (747, 3588, 8, 15), (748, 3596, 7, 15),
    (749, 3603, 8, 15)]"

definition slice_needs_30 :: "slice_need list" where "slice_needs_30 = [
    (750, 3611, 8, 15), (751, 3619, 7, 15), (752, 3626, 8, 15), (753, 3634, 7, 15),
    (754, 3641, 8, 15), (755, 3649, 7, 15), (756, 3656, 8, 15), (757, 3664, 9, 15),
    (758, 3673, 8, 15), (759, 3681, 8, 15), (760, 3689, 7, 15), (761, 3696, 8, 15),
    (762, 3704, 8, 15), (763, 3712, 7, 15), (764, 3719, 8, 15), (765, 3727, 9, 15),
    (766, 3736, 8, 15), (767, 3744, 8, 15), (768, 3752, 9, 15), (769, 3761, 9, 15),
    (770, 3770, 8, 15), (771, 3778, 7, 15), (772, 3785, 9, 15), (773, 3794, 8, 15),
    (774, 3802, 7, 15)]"

definition slice_needs_31 :: "slice_need list" where "slice_needs_31 = [
    (775, 3809, 7, 15), (776, 3816, 8, 15), (777, 3824, 8, 15), (778, 3832, 7, 15),
    (779, 3839, 7, 15), (780, 3846, 6, 15), (781, 3852, 8, 15), (782, 3860, 7, 15),
    (783, 3867, 8, 15), (784, 3875, 7, 15), (785, 3882, 8, 15), (786, 3890, 8, 15),
    (787, 3898, 7, 15), (788, 3905, 9, 15), (789, 3914, 8, 15), (790, 3922, 9, 15),
    (791, 3931, 8, 15), (792, 3939, 7, 15), (793, 3946, 8, 15), (794, 3954, 9, 15),
    (795, 3963, 8, 15), (796, 3971, 8, 15), (797, 3979, 8, 15), (798, 3987, 8, 15),
    (799, 3995, 7, 15)]"

definition slice_needs_32 :: "slice_need list" where "slice_needs_32 = [
    (800, 4002, 9, 15), (801, 4011, 8, 15), (802, 4019, 9, 15), (803, 4028, 8, 15),
    (804, 4036, 7, 15), (805, 4043, 8, 15), (806, 4051, 9, 15), (807, 4060, 8, 15),
    (808, 4068, 8, 15), (809, 4076, 9, 15), (810, 4085, 8, 15), (811, 4093, 9, 15),
    (812, 4102, 8, 15), (813, 4110, 9, 15), (814, 4119, 10, 15), (815, 4129, 9, 15),
    (816, 4138, 9, 15), (817, 4147, 8, 15), (818, 4155, 9, 15), (819, 4164, 9, 15),
    (820, 4173, 8, 15), (821, 4181, 7, 16), (822, 4188, 8, 16), (823, 4196, 8, 16),
    (824, 4204, 7, 16)]"

definition slice_needs_33 :: "slice_need list" where "slice_needs_33 = [
    (825, 4211, 7, 16), (826, 4218, 6, 16), (827, 4224, 8, 16), (828, 4232, 7, 16),
    (829, 4239, 8, 16), (830, 4247, 7, 16), (831, 4254, 8, 16), (832, 4262, 8, 16),
    (833, 4270, 7, 16), (834, 4277, 9, 16), (835, 4286, 8, 16), (836, 4294, 9, 16),
    (837, 4303, 8, 16), (838, 4311, 7, 16), (839, 4318, 8, 16), (840, 4326, 9, 16),
    (841, 4335, 8, 16), (842, 4343, 8, 16), (843, 4351, 8, 16), (844, 4359, 8, 16),
    (845, 4367, 7, 16), (846, 4374, 9, 16), (847, 4383, 8, 16), (848, 4391, 9, 16),
    (849, 4400, 8, 16)]"

definition slice_needs_34 :: "slice_need list" where "slice_needs_34 = [
    (850, 4408, 7, 16), (851, 4415, 8, 16), (852, 4423, 9, 16), (853, 4432, 8, 16),
    (854, 4440, 8, 16), (855, 4448, 9, 16), (856, 4457, 8, 16), (857, 4465, 9, 16),
    (858, 4474, 8, 16), (859, 4482, 9, 16), (860, 4491, 10, 16), (861, 4501, 9, 16),
    (862, 4510, 9, 16), (863, 4519, 8, 16), (864, 4527, 9, 16), (865, 4536, 9, 16),
    (866, 4545, 8, 16), (867, 4553, 8, 16), (868, 4561, 7, 16), (869, 4568, 8, 16),
    (870, 4576, 8, 16), (871, 4584, 7, 16), (872, 4591, 8, 16), (873, 4599, 9, 16),
    (874, 4608, 9, 16)]"

definition slice_needs_35 :: "slice_need list" where "slice_needs_35 = [
    (875, 4617, 8, 16), (876, 4625, 8, 16), (877, 4633, 7, 16), (878, 4640, 9, 16),
    (879, 4649, 8, 16), (880, 4657, 9, 16), (881, 4666, 8, 16), (882, 4674, 8, 16),
    (883, 4682, 9, 16), (884, 4691, 9, 16), (885, 4700, 8, 16), (886, 4708, 8, 16),
    (887, 4716, 7, 16), (888, 4723, 9, 16), (889, 4732, 8, 16), (890, 4740, 9, 16),
    (891, 4749, 8, 16), (892, 4757, 9, 16), (893, 4766, 9, 16), (894, 4775, 8, 16),
    (895, 4783, 10, 16), (896, 4793, 9, 16), (897, 4802, 10, 16), (898, 4812, 9, 16),
    (899, 4821, 8, 16)]"

definition slice_needs_36 :: "slice_need list" where "slice_needs_36 = [
    (900, 4829, 9, 16), (901, 4838, 10, 16), (902, 4848, 9, 16), (903, 4857, 9, 16),
    (904, 4866, 8, 17), (905, 4874, 7, 17), (906, 4881, 8, 17), (907, 4889, 8, 17),
    (908, 4897, 7, 17), (909, 4904, 8, 17), (910, 4912, 9, 17), (911, 4921, 9, 17),
    (912, 4930, 8, 17), (913, 4938, 8, 17), (914, 4946, 7, 17), (915, 4953, 9, 17),
    (916, 4962, 8, 17), (917, 4970, 9, 17), (918, 4979, 8, 17), (919, 4987, 8, 17),
    (920, 4995, 9, 17), (921, 5004, 9, 17), (922, 5013, 8, 17), (923, 5021, 8, 17),
    (924, 5029, 7, 17)]"

definition slice_needs_37 :: "slice_need list" where "slice_needs_37 = [
    (925, 5036, 9, 17), (926, 5045, 8, 17), (927, 5053, 9, 17), (928, 5062, 8, 17),
    (929, 5070, 9, 17), (930, 5079, 9, 17), (931, 5088, 8, 17), (932, 5096, 10, 17),
    (933, 5106, 9, 17), (934, 5115, 10, 17), (935, 5125, 9, 17), (936, 5134, 8, 17),
    (937, 5142, 9, 17), (938, 5151, 10, 17), (939, 5161, 9, 17), (940, 5170, 9, 17),
    (941, 5179, 8, 17), (942, 5187, 9, 17), (943, 5196, 8, 17), (944, 5204, 9, 17),
    (945, 5213, 9, 17), (946, 5222, 8, 17), (947, 5230, 9, 17), (948, 5239, 8, 17),
    (949, 5247, 9, 17)]"

definition slice_needs_38 :: "slice_need list" where "slice_needs_38 = [
    (950, 5256, 9, 17), (951, 5265, 8, 17), (952, 5273, 9, 17), (953, 5282, 10, 17),
    (954, 5292, 10, 17), (955, 5302, 9, 17), (956, 5311, 9, 17), (957, 5320, 8, 17),
    (958, 5328, 10, 17), (959, 5338, 9, 17), (960, 5347, 10, 17), (961, 5357, 9, 17),
    (962, 5366, 8, 18), (963, 5374, 9, 18), (964, 5383, 8, 18), (965, 5391, 9, 18),
    (966, 5400, 9, 18), (967, 5409, 8, 18), (968, 5417, 9, 18), (969, 5426, 8, 18),
    (970, 5434, 9, 18), (971, 5443, 9, 18), (972, 5452, 8, 18), (973, 5460, 9, 18),
    (974, 5469, 10, 18)]"

definition slice_needs_39 :: "slice_need list" where "slice_needs_39 = [
    (975, 5479, 10, 18), (976, 5489, 9, 18), (977, 5498, 9, 18), (978, 5507, 8, 18),
    (979, 5515, 10, 18), (980, 5525, 9, 18), (981, 5534, 10, 18), (982, 5544, 9, 18),
    (983, 5553, 9, 18), (984, 5562, 9, 18), (985, 5571, 10, 18), (986, 5581, 9, 18),
    (987, 5590, 10, 18), (988, 5600, 10, 18), (989, 5610, 9, 18), (990, 5619, 9, 19),
    (991, 5628, 9, 19), (992, 5637, 10, 19), (993, 5647, 9, 19), (994, 5656, 10, 19),
    (995, 5666, 10, 19), (996, 5676, 9, 19), (997, 5685, 10, 19), (998, 5695, 10, 20)]"

definition alias_needs_0 :: "(nat \<times> nat) list" where "alias_needs_0 = [(0, 0), (1, 1), (2, 1), (5, 2), (18, 3), (23, 3)]"

definition alias_needs_1 :: "(nat \<times> nat) list" where "alias_needs_1 = [(36, 2), (42, 4), (43, 4), (47, 4), (48, 3), (49, 4)]"

definition alias_needs_2 :: "(nat \<times> nat) list" where "alias_needs_2 = [(50, 1), (54, 3), (56, 1), (61, 5), (63, 4), (64, 4), (68, 5), (69, 4)]"

definition alias_needs_3 :: "(nat \<times> nat) list" where "alias_needs_3 = [(78, 5), (79, 5), (82, 3), (83, 3), (84, 2), (86, 3), (94, 2), (99, 4)]"

definition alias_needs_4 :: "(nat \<times> nat) list" where "alias_needs_4 = [(106, 6), (107, 6), (109, 3), (110, 6), (111, 6), (112, 6), (123, 6)]"

definition alias_needs_5 :: "(nat \<times> nat) list" where "alias_needs_5 = [(129, 2), (130, 2), (135, 7), (137, 7), (138, 7), (139, 7), (140, 6), (142, 4), (143, 7),
    (145, 7), (147, 7), (148, 7)]"

definition alias_needs_6 :: "(nat \<times> nat) list" where "alias_needs_6 = [(150, 7), (151, 7), (167, 2), (168, 2), (171, 4), (172, 7), (174, 8)]"

definition alias_needs_7 :: "(nat \<times> nat) list" where "alias_needs_7 = [(175, 8), (177, 8), (179, 8), (180, 8), (182, 8), (183, 8), (185, 8), (187, 8), (189, 8),
    (191, 8), (192, 8), (194, 8), (195, 8), (197, 8), (199, 8)]"

definition alias_needs_8 :: "(nat \<times> nat) list" where "alias_needs_8 = [(200, 8), (218, 2), (223, 5)]"

definition alias_needs_9 :: "(nat \<times> nat) list" where "alias_needs_9 = [(225, 5), (227, 8), (229, 9), (231, 9), (233, 9), (235, 9), (236, 9), (238, 9), (239, 9),
    (241, 9), (243, 9), (244, 9), (245, 6), (246, 9), (248, 9)]"

definition alias_needs_10 :: "(nat \<times> nat) list" where "alias_needs_10 = [(250, 9), (251, 9), (253, 9), (256, 9), (258, 9), (259, 9), (261, 9), (263, 9), (265, 9),
    (266, 9), (268, 9)]"

definition alias_needs_11 :: "(nat \<times> nat) list" where "alias_needs_11 = [(288, 2), (290, 6), (292, 6), (294, 10), (296, 10), (298, 10), (299, 10)]"

definition alias_needs_12 :: "(nat \<times> nat) list" where "alias_needs_12 = [(301, 10), (304, 10), (306, 10), (307, 10), (309, 10), (311, 10), (313, 10), (314, 10),
    (316, 10), (318, 10), (319, 10), (320, 10), (321, 10), (324, 10)]"

definition alias_needs_13 :: "(nat \<times> nat) list" where "alias_needs_13 = [(326, 10), (328, 10), (329, 10), (330, 10), (332, 10), (335, 10), (337, 10), (338, 10),
    (340, 10), (343, 10), (345, 10)]"

definition alias_needs_14 :: "(nat \<times> nat) list" where "alias_needs_14 = [(369, 7), (371, 11), (372, 11), (373, 11), (374, 11)]"

definition alias_needs_15 :: "(nat \<times> nat) list" where "alias_needs_15 = [(377, 11), (379, 11), (381, 11), (382, 11), (383, 11), (385, 11), (388, 11), (390, 11),
    (391, 11), (393, 11), (396, 11), (398, 11), (399, 11)]"

definition alias_needs_16 :: "(nat \<times> nat) list" where "alias_needs_16 = [(401, 11), (403, 11), (404, 11), (406, 11), (407, 11), (409, 11), (410, 11), (411, 11),
    (415, 11), (417, 11), (419, 11), (421, 11), (424, 11)]"

definition alias_needs_17 :: "(nat \<times> nat) list" where "alias_needs_17 = [(426, 11), (428, 11), (429, 11), (430, 11), (432, 11)]"

definition alias_needs_18 :: "(nat \<times> nat) list" where "alias_needs_18 = [(456, 12), (458, 12), (460, 12), (461, 12), (463, 12), (464, 12), (466, 12), (467, 12),
    (468, 12), (472, 12), (474, 12)]"

definition alias_needs_19 :: "(nat \<times> nat) list" where "alias_needs_19 = [(476, 12), (478, 12), (481, 12), (483, 12), (485, 12), (486, 12), (487, 12), (489, 12),
    (491, 12), (493, 12), (495, 12), (497, 12), (498, 12)]"

definition alias_needs_20 :: "(nat \<times> nat) list" where "alias_needs_20 = [(500, 12), (501, 12), (503, 12), (505, 12), (506, 12), (507, 12), (509, 12), (511, 12),
    (512, 12), (514, 12), (515, 12), (520, 12), (524, 12)]"

definition alias_needs_21 :: "(nat \<times> nat) list" where "alias_needs_21 = [(526, 12), (528, 12), (530, 12), (546, 13), (548, 13)]"

definition alias_needs_22 :: "(nat \<times> nat) list" where "alias_needs_22 = [(550, 13), (552, 13), (553, 13), (555, 13), (556, 13), (558, 13), (560, 13), (561, 13),
    (562, 13), (564, 13), (566, 13), (567, 13), (569, 13), (570, 13)]"

definition alias_needs_23 :: "(nat \<times> nat) list" where "alias_needs_23 = [(575, 13), (579, 13), (581, 13), (583, 13), (585, 13), (587, 13), (589, 13), (590, 13),
    (592, 13), (595, 13), (597, 13), (598, 13)]"

definition alias_needs_24 :: "(nat \<times> nat) list" where "alias_needs_24 = [(600, 13), (602, 13), (604, 13), (605, 13), (607, 13), (608, 13), (610, 13), (612, 13),
    (614, 13), (615, 13), (617, 13), (618, 13), (620, 13), (622, 13), (623, 13)]"

definition alias_needs_25 :: "(nat \<times> nat) list" where "alias_needs_25 = [(629, 13), (637, 14), (639, 14), (640, 14), (642, 14), (645, 14), (647, 14), (648, 14)]"

definition alias_needs_26 :: "(nat \<times> nat) list" where "alias_needs_26 = [(650, 14), (652, 14), (654, 14), (655, 14), (657, 14), (658, 14), (660, 14), (662, 14),
    (664, 14), (665, 14), (667, 14), (668, 14), (670, 14), (672, 14), (673, 14)]"

definition alias_needs_27 :: "(nat \<times> nat) list" where "alias_needs_27 = [(679, 14), (682, 14), (684, 14), (686, 14), (687, 14), (688, 14), (690, 14), (693, 14),
    (695, 14), (696, 14), (698, 14)]"

definition alias_needs_28 :: "(nat \<times> nat) list" where "alias_needs_28 = [(701, 14), (703, 14), (705, 14), (707, 14), (708, 14), (710, 14), (713, 14), (715, 14),
    (716, 14), (718, 14), (720, 14), (722, 14), (723, 14)]"

definition alias_needs_29 :: "(nat \<times> nat) list" where "alias_needs_29 = [(725, 14), (730, 15), (732, 15), (734, 15), (735, 15), (736, 15), (738, 15), (741, 15),
    (743, 15), (744, 15), (746, 15), (749, 15)]"

definition alias_needs_30 :: "(nat \<times> nat) list" where "alias_needs_30 = [(751, 15), (753, 15), (755, 15), (756, 15), (758, 15), (761, 15), (763, 15), (764, 15),
    (766, 15), (768, 15), (770, 15), (771, 15), (773, 15)]"

definition alias_needs_31 :: "(nat \<times> nat) list" where "alias_needs_31 = [(778, 15), (780, 15), (782, 15), (784, 15), (787, 15), (789, 15), (791, 15), (792, 15),
    (793, 15), (795, 15), (799, 15)]"

definition alias_needs_32 :: "(nat \<times> nat) list" where "alias_needs_32 = [(801, 15), (803, 15), (804, 15), (805, 15), (807, 15), (810, 15), (812, 15), (813, 15),
    (815, 15), (818, 15), (820, 15), (824, 16)]"

definition alias_needs_33 :: "(nat \<times> nat) list" where "alias_needs_33 = [(826, 16), (828, 16), (830, 16), (833, 16), (835, 16), (837, 16), (838, 16), (839, 16),
    (841, 16), (845, 16), (847, 16), (849, 16)]"

definition alias_needs_34 :: "(nat \<times> nat) list" where "alias_needs_34 = [(850, 16), (851, 16), (853, 16), (856, 16), (858, 16), (859, 16), (861, 16), (864, 16),
    (866, 16), (871, 16)]"

definition alias_needs_35 :: "(nat \<times> nat) list" where "alias_needs_35 = [(875, 16), (877, 16), (879, 16), (881, 16), (885, 16), (887, 16), (889, 16), (891, 16),
    (894, 16), (896, 16), (898, 16), (899, 16)]"

definition alias_needs_36 :: "(nat \<times> nat) list" where "alias_needs_36 = [(900, 16), (902, 16), (908, 17), (912, 17), (914, 17), (916, 17), (918, 17), (922, 17),
    (924, 17)]"

definition alias_needs_37 :: "(nat \<times> nat) list" where "alias_needs_37 = [(926, 17), (928, 17), (931, 17), (933, 17), (935, 17), (936, 17), (937, 17), (939, 17),
    (946, 17)]"

definition alias_needs_38 :: "(nat \<times> nat) list" where "alias_needs_38 = [(951, 17), (955, 17), (957, 17), (959, 17), (961, 17), (967, 18), (972, 18)]"

definition alias_needs_39 :: "(nat \<times> nat) list" where "alias_needs_39 = [(976, 18), (978, 18), (980, 18), (982, 18), (989, 18), (996, 19)]"

definition slice_needs :: "slice_need list" where
  "slice_needs = concat [
    slice_needs_0, slice_needs_1, slice_needs_2, slice_needs_3, slice_needs_4, slice_needs_5,
    slice_needs_6, slice_needs_7, slice_needs_8, slice_needs_9, slice_needs_10, slice_needs_11,
    slice_needs_12, slice_needs_13, slice_needs_14, slice_needs_15, slice_needs_16,
    slice_needs_17, slice_needs_18, slice_needs_19, slice_needs_20, slice_needs_21,
    slice_needs_22, slice_needs_23, slice_needs_24, slice_needs_25, slice_needs_26,
    slice_needs_27, slice_needs_28, slice_needs_29, slice_needs_30, slice_needs_31,
    slice_needs_32, slice_needs_33, slice_needs_34, slice_needs_35, slice_needs_36,
    slice_needs_37, slice_needs_38, slice_needs_39]"

lemmas slice_needs_blocks =
  slice_needs_0_def slice_needs_1_def slice_needs_2_def slice_needs_3_def slice_needs_4_def
  slice_needs_5_def slice_needs_6_def slice_needs_7_def slice_needs_8_def slice_needs_9_def
  slice_needs_10_def slice_needs_11_def slice_needs_12_def slice_needs_13_def slice_needs_14_def
  slice_needs_15_def slice_needs_16_def slice_needs_17_def slice_needs_18_def slice_needs_19_def
  slice_needs_20_def slice_needs_21_def slice_needs_22_def slice_needs_23_def slice_needs_24_def
  slice_needs_25_def slice_needs_26_def slice_needs_27_def slice_needs_28_def slice_needs_29_def
  slice_needs_30_def slice_needs_31_def slice_needs_32_def slice_needs_33_def slice_needs_34_def
  slice_needs_35_def slice_needs_36_def slice_needs_37_def slice_needs_38_def slice_needs_39_def

definition alias_needs :: "(nat \<times> nat) list" where
  "alias_needs = concat [
    alias_needs_0, alias_needs_1, alias_needs_2, alias_needs_3, alias_needs_4, alias_needs_5,
    alias_needs_6, alias_needs_7, alias_needs_8, alias_needs_9, alias_needs_10, alias_needs_11,
    alias_needs_12, alias_needs_13, alias_needs_14, alias_needs_15, alias_needs_16,
    alias_needs_17, alias_needs_18, alias_needs_19, alias_needs_20, alias_needs_21,
    alias_needs_22, alias_needs_23, alias_needs_24, alias_needs_25, alias_needs_26,
    alias_needs_27, alias_needs_28, alias_needs_29, alias_needs_30, alias_needs_31,
    alias_needs_32, alias_needs_33, alias_needs_34, alias_needs_35, alias_needs_36,
    alias_needs_37, alias_needs_38, alias_needs_39]"

lemmas alias_needs_blocks =
  alias_needs_0_def alias_needs_1_def alias_needs_2_def alias_needs_3_def alias_needs_4_def
  alias_needs_5_def alias_needs_6_def alias_needs_7_def alias_needs_8_def alias_needs_9_def
  alias_needs_10_def alias_needs_11_def alias_needs_12_def alias_needs_13_def alias_needs_14_def
  alias_needs_15_def alias_needs_16_def alias_needs_17_def alias_needs_18_def alias_needs_19_def
  alias_needs_20_def alias_needs_21_def alias_needs_22_def alias_needs_23_def alias_needs_24_def
  alias_needs_25_def alias_needs_26_def alias_needs_27_def alias_needs_28_def alias_needs_29_def
  alias_needs_30_def alias_needs_31_def alias_needs_32_def alias_needs_33_def alias_needs_34_def
  alias_needs_35_def alias_needs_36_def alias_needs_37_def alias_needs_38_def alias_needs_39_def

lemma slice_needs_rows:
  "map (\<lambda>(p, i, n, c). (p, map_slice i n)) slice_needs = field_map_slice_rows"
  unfolding slice_needs_def slice_needs_blocks field_map_slice_rows_def
    field_map_slices_0_def field_map_slices_1_def field_map_slices_2_def field_map_slices_3_def
    field_map_slices_4_def field_map_slices_5_def field_map_slices_6_def
  by simp

fun aliases_match :: "(nat \<times> nat) list \<Rightarrow> (nat \<times> (nat \<times> nat) list) list \<Rightarrow> bool" where
  "aliases_match ((p, c) # ks) ((q, ds) # rs) \<longleftrightarrow>
     p = q \<and> list_all (\<lambda>(i, s). i < c) ds \<and> aliases_match ks rs"
| "aliases_match [] rs \<longleftrightarrow> rs = []"
| "aliases_match (k # ks) [] \<longleftrightarrow> False"

lemma alias_needs_rows: "aliases_match alias_needs alias_sequence_rows"
  unfolding alias_needs_def alias_needs_blocks alias_sequence_rows_def
    alias_sequences_0_def alias_sequences_1_def alias_sequences_2_def alias_sequences_3_def
    alias_sequences_4_def alias_sequences_5_def alias_sequences_6_def alias_sequences_7_def
    alias_sequences_8_def
  by simp

lemma slice_needs_0_ok: "list_all (\<lambda>(p, i, n, c). run_at i n c) slice_needs_0"
  unfolding slice_needs_0_def by (simp add: run_at_facts del: One_nat_def)

lemma slice_needs_1_ok: "list_all (\<lambda>(p, i, n, c). run_at i n c) slice_needs_1"
  unfolding slice_needs_1_def by (simp add: run_at_facts del: One_nat_def)

lemma slice_needs_2_ok: "list_all (\<lambda>(p, i, n, c). run_at i n c) slice_needs_2"
  unfolding slice_needs_2_def by (simp add: run_at_facts del: One_nat_def)

lemma slice_needs_3_ok: "list_all (\<lambda>(p, i, n, c). run_at i n c) slice_needs_3"
  unfolding slice_needs_3_def by (simp add: run_at_facts del: One_nat_def)

lemma slice_needs_4_ok: "list_all (\<lambda>(p, i, n, c). run_at i n c) slice_needs_4"
  unfolding slice_needs_4_def by (simp add: run_at_facts del: One_nat_def)

lemma slice_needs_5_ok: "list_all (\<lambda>(p, i, n, c). run_at i n c) slice_needs_5"
  unfolding slice_needs_5_def by (simp add: run_at_facts del: One_nat_def)

lemma slice_needs_6_ok: "list_all (\<lambda>(p, i, n, c). run_at i n c) slice_needs_6"
  unfolding slice_needs_6_def by (simp add: run_at_facts del: One_nat_def)

lemma slice_needs_7_ok: "list_all (\<lambda>(p, i, n, c). run_at i n c) slice_needs_7"
  unfolding slice_needs_7_def by (simp add: run_at_facts del: One_nat_def)

lemma slice_needs_8_ok: "list_all (\<lambda>(p, i, n, c). run_at i n c) slice_needs_8"
  unfolding slice_needs_8_def by (simp add: run_at_facts del: One_nat_def)

lemma slice_needs_9_ok: "list_all (\<lambda>(p, i, n, c). run_at i n c) slice_needs_9"
  unfolding slice_needs_9_def by (simp add: run_at_facts del: One_nat_def)

lemma slice_needs_10_ok: "list_all (\<lambda>(p, i, n, c). run_at i n c) slice_needs_10"
  unfolding slice_needs_10_def by (simp add: run_at_facts del: One_nat_def)

lemma slice_needs_11_ok: "list_all (\<lambda>(p, i, n, c). run_at i n c) slice_needs_11"
  unfolding slice_needs_11_def by (simp add: run_at_facts del: One_nat_def)

lemma slice_needs_12_ok: "list_all (\<lambda>(p, i, n, c). run_at i n c) slice_needs_12"
  unfolding slice_needs_12_def by (simp add: run_at_facts del: One_nat_def)

lemma slice_needs_13_ok: "list_all (\<lambda>(p, i, n, c). run_at i n c) slice_needs_13"
  unfolding slice_needs_13_def by (simp add: run_at_facts del: One_nat_def)

lemma slice_needs_14_ok: "list_all (\<lambda>(p, i, n, c). run_at i n c) slice_needs_14"
  unfolding slice_needs_14_def by (simp add: run_at_facts del: One_nat_def)

lemma slice_needs_15_ok: "list_all (\<lambda>(p, i, n, c). run_at i n c) slice_needs_15"
  unfolding slice_needs_15_def by (simp add: run_at_facts del: One_nat_def)

lemma slice_needs_16_ok: "list_all (\<lambda>(p, i, n, c). run_at i n c) slice_needs_16"
  unfolding slice_needs_16_def by (simp add: run_at_facts del: One_nat_def)

lemma slice_needs_17_ok: "list_all (\<lambda>(p, i, n, c). run_at i n c) slice_needs_17"
  unfolding slice_needs_17_def by (simp add: run_at_facts del: One_nat_def)

lemma slice_needs_18_ok: "list_all (\<lambda>(p, i, n, c). run_at i n c) slice_needs_18"
  unfolding slice_needs_18_def by (simp add: run_at_facts del: One_nat_def)

lemma slice_needs_19_ok: "list_all (\<lambda>(p, i, n, c). run_at i n c) slice_needs_19"
  unfolding slice_needs_19_def by (simp add: run_at_facts del: One_nat_def)

lemma slice_needs_20_ok: "list_all (\<lambda>(p, i, n, c). run_at i n c) slice_needs_20"
  unfolding slice_needs_20_def by (simp add: run_at_facts del: One_nat_def)

lemma slice_needs_21_ok: "list_all (\<lambda>(p, i, n, c). run_at i n c) slice_needs_21"
  unfolding slice_needs_21_def by (simp add: run_at_facts del: One_nat_def)

lemma slice_needs_22_ok: "list_all (\<lambda>(p, i, n, c). run_at i n c) slice_needs_22"
  unfolding slice_needs_22_def by (simp add: run_at_facts del: One_nat_def)

lemma slice_needs_23_ok: "list_all (\<lambda>(p, i, n, c). run_at i n c) slice_needs_23"
  unfolding slice_needs_23_def by (simp add: run_at_facts del: One_nat_def)

lemma slice_needs_24_ok: "list_all (\<lambda>(p, i, n, c). run_at i n c) slice_needs_24"
  unfolding slice_needs_24_def by (simp add: run_at_facts del: One_nat_def)

lemma slice_needs_25_ok: "list_all (\<lambda>(p, i, n, c). run_at i n c) slice_needs_25"
  unfolding slice_needs_25_def by (simp add: run_at_facts del: One_nat_def)

lemma slice_needs_26_ok: "list_all (\<lambda>(p, i, n, c). run_at i n c) slice_needs_26"
  unfolding slice_needs_26_def by (simp add: run_at_facts del: One_nat_def)

lemma slice_needs_27_ok: "list_all (\<lambda>(p, i, n, c). run_at i n c) slice_needs_27"
  unfolding slice_needs_27_def by (simp add: run_at_facts del: One_nat_def)

lemma slice_needs_28_ok: "list_all (\<lambda>(p, i, n, c). run_at i n c) slice_needs_28"
  unfolding slice_needs_28_def by (simp add: run_at_facts del: One_nat_def)

lemma slice_needs_29_ok: "list_all (\<lambda>(p, i, n, c). run_at i n c) slice_needs_29"
  unfolding slice_needs_29_def by (simp add: run_at_facts del: One_nat_def)

lemma slice_needs_30_ok: "list_all (\<lambda>(p, i, n, c). run_at i n c) slice_needs_30"
  unfolding slice_needs_30_def by (simp add: run_at_facts del: One_nat_def)

lemma slice_needs_31_ok: "list_all (\<lambda>(p, i, n, c). run_at i n c) slice_needs_31"
  unfolding slice_needs_31_def by (simp add: run_at_facts del: One_nat_def)

lemma slice_needs_32_ok: "list_all (\<lambda>(p, i, n, c). run_at i n c) slice_needs_32"
  unfolding slice_needs_32_def by (simp add: run_at_facts del: One_nat_def)

lemma slice_needs_33_ok: "list_all (\<lambda>(p, i, n, c). run_at i n c) slice_needs_33"
  unfolding slice_needs_33_def by (simp add: run_at_facts del: One_nat_def)

lemma slice_needs_34_ok: "list_all (\<lambda>(p, i, n, c). run_at i n c) slice_needs_34"
  unfolding slice_needs_34_def by (simp add: run_at_facts del: One_nat_def)

lemma slice_needs_35_ok: "list_all (\<lambda>(p, i, n, c). run_at i n c) slice_needs_35"
  unfolding slice_needs_35_def by (simp add: run_at_facts del: One_nat_def)

lemma slice_needs_36_ok: "list_all (\<lambda>(p, i, n, c). run_at i n c) slice_needs_36"
  unfolding slice_needs_36_def by (simp add: run_at_facts del: One_nat_def)

lemma slice_needs_37_ok: "list_all (\<lambda>(p, i, n, c). run_at i n c) slice_needs_37"
  unfolding slice_needs_37_def by (simp add: run_at_facts del: One_nat_def)

lemma slice_needs_38_ok: "list_all (\<lambda>(p, i, n, c). run_at i n c) slice_needs_38"
  unfolding slice_needs_38_def by (simp add: run_at_facts del: One_nat_def)

lemma slice_needs_39_ok: "list_all (\<lambda>(p, i, n, c). run_at i n c) slice_needs_39"
  unfolding slice_needs_39_def by (simp add: run_at_facts del: One_nat_def)

lemma slice_needs_ok: "list_all (\<lambda>(p, i, n, c). run_at i n c) slice_needs"
  unfolding slice_needs_def
  by (simp add: slice_needs_0_ok slice_needs_1_ok slice_needs_2_ok slice_needs_3_ok slice_needs_4_ok
    slice_needs_5_ok slice_needs_6_ok slice_needs_7_ok slice_needs_8_ok slice_needs_9_ok
    slice_needs_10_ok slice_needs_11_ok slice_needs_12_ok slice_needs_13_ok slice_needs_14_ok
    slice_needs_15_ok slice_needs_16_ok slice_needs_17_ok slice_needs_18_ok slice_needs_19_ok
    slice_needs_20_ok slice_needs_21_ok slice_needs_22_ok slice_needs_23_ok slice_needs_24_ok
    slice_needs_25_ok slice_needs_26_ok slice_needs_27_ok slice_needs_28_ok slice_needs_29_ok
    slice_needs_30_ok slice_needs_31_ok slice_needs_32_ok slice_needs_33_ok slice_needs_34_ok
    slice_needs_35_ok slice_needs_36_ok slice_needs_37_ok slice_needs_38_ok slice_needs_39_ok)

end
