(* ===== verification/Mojo_Production_Proofs.thy ===== *)
theory Mojo_Production_Proofs
  imports Mojo_Production_Needs
begin

text \<open>
  The child counts with which productions are reduced cover the fields and aliases of the
  productions.
\<close>

section \<open>From the needs to the tables\<close>

lemma slice_row_need:
  assumes "p < PRODUCTION_ID_COUNT"
  shows "ts_field_map_slices ! p = map_slice 0 0 \<or>
    (\<exists>i n c es. (p, i, n, c) \<in> set slice_needs \<and> ts_field_map_slices ! p = map_slice i n \<and>
       (i, es) \<in> set field_map_entry_rows \<and> run_ok i n c es)"
  using assms
proof (cases rule: designated_cases [where z = "map_slice 0 0" and ds = field_map_slice_rows])
  case 1
  then show ?thesis by (simp add: ts_field_map_slices_def)
next
  case 2
  then obtain i n c where "(p, i, n, c) \<in> set slice_needs" "ts_field_map_slices ! p = map_slice i n"
    unfolding slice_needs_rows [symmetric] ts_field_map_slices_def by auto
  moreover from this(1) have "run_at i n c" using slice_needs_ok by (force simp: list_all_iff)
  ultimately show ?thesis unfolding run_at_def by blast
qed

lemma production_fields_need:
  assumes "p < PRODUCTION_ID_COUNT"
  shows "production_fields p = [] \<or>
    (\<exists>i n c. (p, i, n, c) \<in> set slice_needs \<and> run_ok i n c (production_fields p))"
  using slice_row_need [OF assms]
proof
  assume "ts_field_map_slices ! p = map_slice 0 0"
  then show ?thesis by (simp add: production_fields_def map_slice_def)
next
  assume "\<exists>i n c es. (p, i, n, c) \<in> set slice_needs \<and> ts_field_map_slices ! p = map_slice i n \<and>
    (i, es) \<in> set field_map_entry_rows \<and> run_ok i n c es"
  then obtain i n c es where e: "(p, i, n, c) \<in> set slice_needs"
    "ts_field_map_slices ! p = map_slice i n" "(i, es) \<in> set field_map_entry_rows" "run_ok i n c es"
    by blast
  have "take (length es) (drop i ts_field_map_entries) = es"
    unfolding ts_field_map_entries_def
    by (rule designated_runs_slice(2) [OF field_map_entry_rows_end e(3)])
  with e(2,4) have "production_fields p = es"
    by (simp add: production_fields_def map_slice_def run_ok_def)
  with e show ?thesis by blast
qed

lemma fields_fitI:
  assumes "p < PRODUCTION_ID_COUNT" "\<And>i n c. (p, i, n, c) \<in> set slice_needs \<Longrightarrow> c \<le> k"
  shows "fields_fit p k"
  using production_fields_need [OF assms(1)] assms(2)
  by (fastforce simp: fields_fit_def run_ok_def entry_ok_def list_all_iff)

lemma aliases_match_rows:
  "aliases_match ks rs \<Longrightarrow> (p, ds) \<in> set rs \<Longrightarrow>
   \<exists>c. (p, c) \<in> set ks \<and> (\<forall>(i, s)\<in>set ds. i < c)"
  by (induction ks rs rule: aliases_match.induct) (fastforce simp: list_all_iff)+

lemma aliases_fitI:
  assumes p: "p < PRODUCTION_ID_COUNT" and need: "\<And>c. (p, c) \<in> set alias_needs \<Longrightarrow> c \<le> k"
  shows "aliases_fit p k"
proof -
  have row: "i \<in> fst ` set ds \<or> alias_row ds ! i = 0" if "i < MAX_ALIAS_SEQUENCE_LENGTH" for i ds
    using that by (cases rule: designated_cases [where z = 0 and ds = ds])
      (force simp: alias_row_def)+
  have "i < k" if i: "i < MAX_ALIAS_SEQUENCE_LENGTH" "ts_alias_sequences ! p ! i \<noteq> 0" for i
    using p
  proof (cases rule: designated_cases [where z = "alias_row []" and
        ds = "map (\<lambda>(p, ds). (p, alias_row ds)) alias_sequence_rows"])
    case 1
    then show ?thesis using i row [of i "[]"] by (simp add: ts_alias_sequences_def)
  next
    case 2
    then obtain ds where ds: "(p, ds) \<in> set alias_sequence_rows" "ts_alias_sequences ! p = alias_row ds"
      unfolding ts_alias_sequences_def by auto
    from aliases_match_rows [OF alias_needs_rows ds(1)] obtain c
      where "(p, c) \<in> set alias_needs" "\<forall>(i, s)\<in>set ds. i < c" by blast
    with row [of i ds] i ds(2) need show ?thesis by fastforce
  qed
  then show ?thesis by (simp add: aliases_fit_def list_all_iff)
qed

section \<open>Productions and child counts\<close>

definition production_fits :: "nat \<Rightarrow> nat \<Rightarrow> bool" where
  "production_fits p c \<longleftrightarrow> p < PRODUCTION_ID_COUNT \<and> fields_fit p c \<and> aliases_fit p c"

text \<open>The needs of a block of productions, and the pairs of a production and a child count that occur
  in the reductions; the pairs of a block are compared with the needs of the same block.\<close>

definition in_block :: "nat \<Rightarrow> nat \<Rightarrow> bool" where
  "in_block b p \<longleftrightarrow> p div 25 = b"

definition needs_in_block :: "nat \<Rightarrow> slice_need list \<Rightarrow> (nat \<times> nat) list \<Rightarrow> bool" where
  "needs_in_block b ss as \<longleftrightarrow> list_all (in_block b \<circ> fst) ss \<and> list_all (in_block b \<circ> fst) as"

definition pairs_fit ::
  "nat \<Rightarrow> (nat \<times> nat) list \<Rightarrow> slice_need list \<Rightarrow> (nat \<times> nat) list \<Rightarrow> bool" where
  "pairs_fit b ps ss as \<longleftrightarrow> list_all (\<lambda>(p, k). in_block b p \<and> p < PRODUCTION_ID_COUNT \<and>
     list_all (\<lambda>(q, i, n, c). q = p \<longrightarrow> c \<le> k) ss \<and> list_all (\<lambda>(q, c). q = p \<longrightarrow> c \<le> k) as) ps"

lemmas pairs_check = needs_in_block_def pairs_fit_def in_block_def PRODUCTION_ID_COUNT_def

lemma needs_in_block_0: "needs_in_block 0 slice_needs_0 alias_needs_0"
  unfolding slice_needs_0_def alias_needs_0_def by (simp add: pairs_check)

lemma pairs_fit_0:
  "pairs_fit 0 [
    (0, 0), (0, 1), (0, 2), (0, 3), (0, 4), (0, 5), (0, 6), (0, 7), (1, 1), (1, 2), (2, 1),
    (3, 1), (3, 2), (4, 2), (5, 2), (5, 3), (5, 4), (6, 2), (6, 3), (7, 1), (7, 2), (7, 3),
    (8, 2), (8, 4), (8, 5), (9, 2), (10, 2), (11, 2), (12, 2), (13, 2), (13, 3), (14, 3),
    (14, 4), (15, 3), (15, 4), (16, 3), (17, 3), (18, 3), (19, 3), (20, 3), (21, 3), (22, 3),
    (23, 3), (24, 3)]
     slice_needs_0 alias_needs_0"
  unfolding slice_needs_0_def alias_needs_0_def by (simp add: pairs_check)

lemma needs_in_block_1: "needs_in_block 1 slice_needs_1 alias_needs_1"
  unfolding slice_needs_1_def alias_needs_1_def by (simp add: pairs_check)

lemma pairs_fit_1:
  "pairs_fit 1 [
    (25, 2), (26, 3), (27, 2), (28, 3), (29, 3), (29, 4), (30, 2), (31, 2), (32, 3), (33, 4),
    (34, 4), (35, 4), (36, 2), (36, 3), (36, 4), (36, 5), (36, 6), (37, 4), (38, 2), (39, 4),
    (40, 4), (40, 5), (41, 4), (42, 4), (43, 4), (44, 2), (45, 4), (46, 2), (47, 4), (48, 3),
    (48, 4), (48, 5), (48, 6), (49, 4)]
     slice_needs_1 alias_needs_1"
  unfolding slice_needs_1_def alias_needs_1_def by (simp add: pairs_check)

lemma needs_in_block_2: "needs_in_block 2 slice_needs_2 alias_needs_2"
  unfolding slice_needs_2_def alias_needs_2_def by (simp add: pairs_check)

lemma pairs_fit_2:
  "pairs_fit 2 [
    (50, 3), (51, 3), (52, 3), (53, 4), (54, 4), (54, 5), (55, 4), (55, 5), (56, 1), (57, 4),
    (58, 4), (59, 5), (60, 5), (61, 5), (62, 1), (63, 5), (64, 5), (65, 5), (66, 5), (67, 5),
    (68, 5), (69, 5), (70, 5), (71, 4), (71, 5), (71, 6), (71, 7), (72, 5), (73, 2), (74, 2)]
     slice_needs_2 alias_needs_2"
  unfolding slice_needs_2_def alias_needs_2_def by (simp add: pairs_check)

lemma needs_in_block_3: "needs_in_block 3 slice_needs_3 alias_needs_3"
  unfolding slice_needs_3_def alias_needs_3_def by (simp add: pairs_check)

lemma pairs_fit_3:
  "pairs_fit 3 [
    (75, 4), (75, 5), (76, 3), (76, 4), (76, 5), (76, 6), (77, 4), (77, 5), (78, 5), (79, 5),
    (80, 4), (81, 5), (82, 3), (83, 3), (84, 2), (85, 2), (86, 5), (86, 6), (87, 2), (88, 5),
    (88, 6), (89, 5), (90, 5), (91, 5), (92, 6), (93, 6), (94, 4), (94, 5), (95, 2), (96, 4),
    (96, 5), (97, 6), (98, 6), (99, 6)]
     slice_needs_3 alias_needs_3"
  unfolding slice_needs_3_def alias_needs_3_def by (simp add: pairs_check)

lemma needs_in_block_4: "needs_in_block 4 slice_needs_4 alias_needs_4"
  unfolding slice_needs_4_def alias_needs_4_def by (simp add: pairs_check)

lemma pairs_fit_4:
  "pairs_fit 4 [
    (100, 2), (101, 6), (102, 6), (103, 3), (104, 6), (105, 6), (106, 6), (107, 6), (108, 6),
    (109, 3), (110, 6), (111, 6), (112, 6), (113, 5), (114, 5), (114, 6), (114, 7), (115, 5),
    (115, 6), (116, 2), (117, 5), (117, 6), (117, 7), (118, 2), (119, 5), (119, 6), (120, 5),
    (120, 6), (120, 7), (121, 6), (122, 6), (123, 6), (124, 6)]
     slice_needs_4 alias_needs_4"
  unfolding slice_needs_4_def alias_needs_4_def by (simp add: pairs_check)

lemma needs_in_block_5: "needs_in_block 5 slice_needs_5 alias_needs_5"
  unfolding slice_needs_5_def alias_needs_5_def by (simp add: pairs_check)

lemma pairs_fit_5:
  "pairs_fit 5 [
    (125, 5), (126, 6), (127, 5), (127, 6), (128, 5), (128, 6), (129, 4), (129, 5), (129, 6),
    (130, 4), (130, 5), (130, 6), (131, 4), (131, 5), (131, 6), (131, 7), (132, 5), (132, 6),
    (133, 7), (134, 7), (135, 7), (136, 7), (137, 7), (138, 7), (139, 7), (140, 7), (141, 7),
    (142, 4), (143, 7), (144, 7), (145, 7), (146, 7), (147, 7), (148, 7), (149, 7)]
     slice_needs_5 alias_needs_5"
  unfolding slice_needs_5_def alias_needs_5_def by (simp add: pairs_check)

lemma needs_in_block_6: "needs_in_block 6 slice_needs_6 alias_needs_6"
  unfolding slice_needs_6_def alias_needs_6_def by (simp add: pairs_check)

lemma pairs_fit_6:
  "pairs_fit 6 [
    (150, 7), (151, 7), (152, 6), (153, 6), (154, 6), (154, 7), (155, 6), (155, 7), (155, 8),
    (156, 6), (157, 6), (157, 7), (158, 6), (158, 7), (159, 6), (160, 6), (160, 7), (160, 8),
    (161, 6), (161, 7), (162, 6), (162, 7), (162, 8), (163, 7), (164, 6), (165, 6), (165, 7),
    (166, 6), (166, 7), (167, 6), (167, 7), (168, 6), (168, 7), (169, 6), (169, 7), (170, 2),
    (170, 3), (170, 4), (171, 4), (172, 8), (173, 8), (174, 8)]
     slice_needs_6 alias_needs_6"
  unfolding slice_needs_6_def alias_needs_6_def by (simp add: pairs_check)

lemma needs_in_block_7: "needs_in_block 7 slice_needs_7 alias_needs_7"
  unfolding slice_needs_7_def alias_needs_7_def by (simp add: pairs_check)

lemma pairs_fit_7:
  "pairs_fit 7 [
    (175, 8), (176, 8), (177, 8), (178, 8), (179, 8), (180, 8), (181, 8), (182, 8), (183, 8),
    (184, 8), (185, 8), (186, 8), (187, 8), (188, 8), (189, 8), (190, 8), (191, 8), (192, 8),
    (193, 8), (194, 8), (195, 8), (196, 8), (197, 8), (198, 8), (199, 8)]
     slice_needs_7 alias_needs_7"
  unfolding slice_needs_7_def alias_needs_7_def by (simp add: pairs_check)

lemma needs_in_block_8: "needs_in_block 8 slice_needs_8 alias_needs_8"
  unfolding slice_needs_8_def alias_needs_8_def by (simp add: pairs_check)

lemma pairs_fit_8:
  "pairs_fit 8 [
    (200, 8), (201, 7), (202, 7), (203, 7), (204, 7), (204, 8), (205, 7), (205, 8), (206, 7),
    (207, 7), (208, 7), (209, 7), (209, 8), (210, 7), (211, 7), (212, 7), (212, 8), (213, 7),
    (213, 8), (213, 9), (214, 7), (215, 7), (215, 8), (216, 7), (216, 8), (217, 7), (217, 8),
    (218, 6), (218, 7), (218, 8), (219, 7), (219, 8), (220, 4), (220, 5), (221, 2), (222, 4),
    (222, 5), (223, 5), (224, 5)]
     slice_needs_8 alias_needs_8"
  unfolding slice_needs_8_def alias_needs_8_def by (simp add: pairs_check)

lemma needs_in_block_9: "needs_in_block 9 slice_needs_9 alias_needs_9"
  unfolding slice_needs_9_def alias_needs_9_def by (simp add: pairs_check)

lemma pairs_fit_9:
  "pairs_fit 9 [
    (225, 5), (226, 9), (227, 9), (228, 9), (229, 9), (230, 9), (231, 9), (232, 9), (233, 9),
    (234, 9), (235, 9), (236, 9), (237, 9), (238, 9), (239, 9), (240, 9), (241, 9), (242, 9),
    (243, 9), (244, 9), (245, 6), (246, 9), (247, 9), (248, 9), (249, 9)]
     slice_needs_9 alias_needs_9"
  unfolding slice_needs_9_def alias_needs_9_def by (simp add: pairs_check)

lemma needs_in_block_10: "needs_in_block 10 slice_needs_10 alias_needs_10"
  unfolding slice_needs_10_def alias_needs_10_def by (simp add: pairs_check)

lemma pairs_fit_10:
  "pairs_fit 10 [
    (250, 9), (251, 9), (252, 9), (253, 9), (254, 9), (255, 9), (256, 9), (257, 9), (258, 9),
    (259, 9), (260, 9), (261, 9), (262, 9), (263, 9), (264, 9), (265, 9), (266, 9), (267, 9),
    (268, 9), (269, 8), (270, 8), (271, 8), (272, 8), (273, 8), (273, 9), (274, 8)]
     slice_needs_10 alias_needs_10"
  unfolding slice_needs_10_def alias_needs_10_def by (simp add: pairs_check)

lemma needs_in_block_11: "needs_in_block 11 slice_needs_11 alias_needs_11"
  unfolding slice_needs_11_def alias_needs_11_def by (simp add: pairs_check)

lemma pairs_fit_11:
  "pairs_fit 11 [
    (275, 8), (276, 8), (277, 8), (278, 8), (279, 8), (280, 8), (281, 8), (282, 8), (282, 9),
    (283, 8), (283, 9), (284, 8), (285, 8), (286, 8), (287, 8), (287, 9), (288, 8), (288, 9),
    (289, 6), (290, 6), (291, 6), (292, 6), (293, 10), (294, 10), (295, 10), (296, 10),
    (297, 10), (298, 10), (299, 10)]
     slice_needs_11 alias_needs_11"
  unfolding slice_needs_11_def alias_needs_11_def by (simp add: pairs_check)

lemma needs_in_block_12: "needs_in_block 12 slice_needs_12 alias_needs_12"
  unfolding slice_needs_12_def alias_needs_12_def by (simp add: pairs_check)

lemma pairs_fit_12:
  "pairs_fit 12 [
    (300, 10), (301, 10), (302, 10), (303, 10), (304, 10), (305, 10), (306, 10), (307, 10),
    (308, 10), (309, 10), (310, 10), (311, 10), (312, 10), (313, 10), (314, 10), (315, 10),
    (316, 10), (317, 10), (318, 10), (319, 10), (320, 10), (321, 10), (322, 10), (323, 10),
    (324, 10)]
     slice_needs_12 alias_needs_12"
  unfolding slice_needs_12_def alias_needs_12_def by (simp add: pairs_check)

lemma needs_in_block_13: "needs_in_block 13 slice_needs_13 alias_needs_13"
  unfolding slice_needs_13_def alias_needs_13_def by (simp add: pairs_check)

lemma pairs_fit_13:
  "pairs_fit 13 [
    (325, 10), (326, 10), (327, 10), (328, 10), (329, 10), (330, 10), (331, 10), (332, 10),
    (333, 10), (334, 10), (335, 10), (336, 10), (337, 10), (338, 10), (339, 10), (340, 10),
    (341, 10), (342, 10), (343, 10), (344, 10), (345, 10), (346, 9), (347, 9), (348, 9), (349, 9)]
     slice_needs_13 alias_needs_13"
  unfolding slice_needs_13_def alias_needs_13_def by (simp add: pairs_check)

lemma needs_in_block_14: "needs_in_block 14 slice_needs_14 alias_needs_14"
  unfolding slice_needs_14_def alias_needs_14_def by (simp add: pairs_check)

lemma pairs_fit_14:
  "pairs_fit 14 [
    (350, 9), (351, 9), (352, 9), (353, 9), (354, 9), (355, 9), (356, 9), (357, 9), (358, 9),
    (359, 9), (360, 9), (361, 9), (361, 10), (362, 9), (363, 9), (364, 9), (365, 9), (366, 9),
    (367, 7), (368, 7), (369, 7), (370, 11), (371, 11), (372, 11), (373, 11), (374, 11)]
     slice_needs_14 alias_needs_14"
  unfolding slice_needs_14_def alias_needs_14_def by (simp add: pairs_check)

lemma needs_in_block_15: "needs_in_block 15 slice_needs_15 alias_needs_15"
  unfolding slice_needs_15_def alias_needs_15_def by (simp add: pairs_check)

lemma pairs_fit_15:
  "pairs_fit 15 [
    (375, 11), (376, 11), (377, 11), (378, 11), (379, 11), (380, 11), (381, 11), (382, 11),
    (383, 11), (384, 11), (385, 11), (386, 11), (387, 11), (388, 11), (389, 11), (390, 11),
    (391, 11), (392, 11), (393, 11), (394, 11), (395, 11), (396, 11), (397, 11), (398, 11),
    (399, 11)]
     slice_needs_15 alias_needs_15"
  unfolding slice_needs_15_def alias_needs_15_def by (simp add: pairs_check)

lemma needs_in_block_16: "needs_in_block 16 slice_needs_16 alias_needs_16"
  unfolding slice_needs_16_def alias_needs_16_def by (simp add: pairs_check)

lemma pairs_fit_16:
  "pairs_fit 16 [
    (400, 11), (401, 11), (402, 11), (403, 11), (404, 11), (405, 11), (406, 11), (407, 11),
    (408, 11), (409, 11), (410, 11), (411, 11), (412, 11), (413, 11), (414, 11), (415, 11),
    (416, 11), (417, 11), (418, 11), (419, 11), (420, 11), (421, 11), (422, 11), (423, 11),
    (424, 11)]
     slice_needs_16 alias_needs_16"
  unfolding slice_needs_16_def alias_needs_16_def by (simp add: pairs_check)

lemma needs_in_block_17: "needs_in_block 17 slice_needs_17 alias_needs_17"
  unfolding slice_needs_17_def alias_needs_17_def by (simp add: pairs_check)

lemma pairs_fit_17:
  "pairs_fit 17 [
    (425, 11), (426, 11), (427, 11), (428, 11), (429, 11), (430, 11), (431, 11), (432, 11),
    (433, 11), (434, 10), (435, 10), (436, 10), (437, 10), (438, 10), (439, 10), (440, 10),
    (441, 10), (442, 10), (443, 10), (444, 10), (445, 10), (446, 10), (447, 10), (448, 10),
    (449, 10)]
     slice_needs_17 alias_needs_17"
  unfolding slice_needs_17_def alias_needs_17_def by (simp add: pairs_check)

lemma needs_in_block_18: "needs_in_block 18 slice_needs_18 alias_needs_18"
  unfolding slice_needs_18_def alias_needs_18_def by (simp add: pairs_check)

lemma pairs_fit_18:
  "pairs_fit 18 [
    (450, 10), (451, 10), (452, 10), (453, 10), (454, 10), (455, 8), (456, 12), (457, 12),
    (458, 12), (459, 12), (460, 12), (461, 12), (462, 12), (463, 12), (464, 12), (465, 12),
    (466, 12), (467, 12), (468, 12), (469, 12), (470, 12), (471, 12), (472, 12), (473, 12),
    (474, 12)]
     slice_needs_18 alias_needs_18"
  unfolding slice_needs_18_def alias_needs_18_def by (simp add: pairs_check)

lemma needs_in_block_19: "needs_in_block 19 slice_needs_19 alias_needs_19"
  unfolding slice_needs_19_def alias_needs_19_def by (simp add: pairs_check)

lemma pairs_fit_19:
  "pairs_fit 19 [
    (475, 12), (476, 12), (477, 12), (478, 12), (479, 12), (480, 12), (481, 12), (482, 12),
    (483, 12), (484, 12), (485, 12), (486, 12), (487, 12), (488, 12), (489, 12), (490, 12),
    (491, 12), (492, 12), (493, 12), (494, 12), (495, 12), (496, 12), (497, 12), (498, 12),
    (499, 12)]
     slice_needs_19 alias_needs_19"
  unfolding slice_needs_19_def alias_needs_19_def by (simp add: pairs_check)

lemma needs_in_block_20: "needs_in_block 20 slice_needs_20 alias_needs_20"
  unfolding slice_needs_20_def alias_needs_20_def by (simp add: pairs_check)

lemma pairs_fit_20:
  "pairs_fit 20 [
    (500, 12), (501, 12), (502, 12), (503, 12), (504, 12), (505, 12), (506, 12), (507, 12),
    (508, 12), (509, 12), (510, 12), (511, 12), (512, 12), (513, 12), (514, 12), (515, 12),
    (516, 12), (517, 12), (518, 12), (519, 12), (520, 12), (521, 12), (522, 12), (523, 12),
    (524, 12)]
     slice_needs_20 alias_needs_20"
  unfolding slice_needs_20_def alias_needs_20_def by (simp add: pairs_check)

lemma needs_in_block_21: "needs_in_block 21 slice_needs_21 alias_needs_21"
  unfolding slice_needs_21_def alias_needs_21_def by (simp add: pairs_check)

lemma pairs_fit_21:
  "pairs_fit 21 [
    (525, 12), (526, 12), (527, 12), (528, 12), (529, 12), (530, 12), (531, 11), (532, 11),
    (533, 11), (534, 11), (535, 11), (536, 11), (537, 11), (538, 11), (539, 11), (540, 11),
    (541, 11), (542, 11), (543, 11), (544, 11), (545, 11), (546, 13), (547, 13), (548, 13),
    (549, 13)]
     slice_needs_21 alias_needs_21"
  unfolding slice_needs_21_def alias_needs_21_def by (simp add: pairs_check)

lemma needs_in_block_22: "needs_in_block 22 slice_needs_22 alias_needs_22"
  unfolding slice_needs_22_def alias_needs_22_def by (simp add: pairs_check)

lemma pairs_fit_22:
  "pairs_fit 22 [
    (550, 13), (551, 13), (552, 13), (553, 13), (554, 13), (555, 13), (556, 13), (557, 13),
    (558, 13), (559, 13), (560, 13), (561, 13), (562, 13), (563, 13), (564, 13), (565, 13),
    (566, 13), (567, 13), (568, 13), (569, 13), (570, 13), (571, 13), (572, 13), (573, 13),
    (574, 13)]
     slice_needs_22 alias_needs_22"
  unfolding slice_needs_22_def alias_needs_22_def by (simp add: pairs_check)

lemma needs_in_block_23: "needs_in_block 23 slice_needs_23 alias_needs_23"
  unfolding slice_needs_23_def alias_needs_23_def by (simp add: pairs_check)

lemma pairs_fit_23:
  "pairs_fit 23 [
    (575, 13), (576, 13), (577, 13), (578, 13), (579, 13), (580, 13), (581, 13), (582, 13),
    (583, 13), (584, 13), (585, 13), (586, 13), (587, 13), (588, 13), (589, 13), (590, 13),
    (591, 13), (592, 13), (593, 13), (594, 13), (595, 13), (596, 13), (597, 13), (598, 13),
    (599, 13)]
     slice_needs_23 alias_needs_23"
  unfolding slice_needs_23_def alias_needs_23_def by (simp add: pairs_check)

lemma needs_in_block_24: "needs_in_block 24 slice_needs_24 alias_needs_24"
  unfolding slice_needs_24_def alias_needs_24_def by (simp add: pairs_check)

lemma pairs_fit_24:
  "pairs_fit 24 [
    (600, 13), (601, 13), (602, 13), (603, 13), (604, 13), (605, 13), (606, 13), (607, 13),
    (608, 13), (609, 13), (610, 13), (611, 13), (612, 13), (613, 13), (614, 13), (615, 13),
    (616, 13), (617, 13), (618, 13), (619, 13), (620, 13), (621, 13), (622, 13), (623, 13),
    (624, 13)]
     slice_needs_24 alias_needs_24"
  unfolding slice_needs_24_def alias_needs_24_def by (simp add: pairs_check)

lemma needs_in_block_25: "needs_in_block 25 slice_needs_25 alias_needs_25"
  unfolding slice_needs_25_def alias_needs_25_def by (simp add: pairs_check)

lemma pairs_fit_25:
  "pairs_fit 25 [
    (625, 13), (626, 13), (627, 13), (628, 13), (629, 13), (630, 12), (631, 12), (632, 12),
    (633, 12), (634, 12), (635, 12), (636, 14), (637, 14), (638, 14), (639, 14), (640, 14),
    (641, 14), (642, 14), (643, 14), (644, 14), (645, 14), (646, 14), (647, 14), (648, 14),
    (649, 14)]
     slice_needs_25 alias_needs_25"
  unfolding slice_needs_25_def alias_needs_25_def by (simp add: pairs_check)

lemma needs_in_block_26: "needs_in_block 26 slice_needs_26 alias_needs_26"
  unfolding slice_needs_26_def alias_needs_26_def by (simp add: pairs_check)

lemma pairs_fit_26:
  "pairs_fit 26 [
    (650, 14), (651, 14), (652, 14), (653, 14), (654, 14), (655, 14), (656, 14), (657, 14),
    (658, 14), (659, 14), (660, 14), (661, 14), (662, 14), (663, 14), (664, 14), (665, 14),
    (666, 14), (667, 14), (668, 14), (669, 14), (670, 14), (671, 14), (672, 14), (673, 14),
    (674, 14)]
     slice_needs_26 alias_needs_26"
  unfolding slice_needs_26_def alias_needs_26_def by (simp add: pairs_check)

lemma needs_in_block_27: "needs_in_block 27 slice_needs_27 alias_needs_27"
  unfolding slice_needs_27_def alias_needs_27_def by (simp add: pairs_check)

lemma pairs_fit_27:
  "pairs_fit 27 [
    (675, 14), (676, 14), (677, 14), (678, 14), (679, 14), (680, 14), (681, 14), (682, 14),
    (683, 14), (684, 14), (685, 14), (686, 14), (687, 14), (688, 14), (689, 14), (690, 14),
    (691, 14), (692, 14), (693, 14), (694, 14), (695, 14), (696, 14), (697, 14), (698, 14),
    (699, 14)]
     slice_needs_27 alias_needs_27"
  unfolding slice_needs_27_def alias_needs_27_def by (simp add: pairs_check)

lemma needs_in_block_28: "needs_in_block 28 slice_needs_28 alias_needs_28"
  unfolding slice_needs_28_def alias_needs_28_def by (simp add: pairs_check)

lemma pairs_fit_28:
  "pairs_fit 28 [
    (700, 14), (701, 14), (702, 14), (703, 14), (704, 14), (705, 14), (706, 14), (707, 14),
    (708, 14), (709, 14), (710, 14), (711, 14), (712, 14), (713, 14), (714, 14), (715, 14),
    (716, 14), (717, 14), (718, 14), (719, 14), (720, 14), (721, 14), (722, 14), (723, 14),
    (724, 14)]
     slice_needs_28 alias_needs_28"
  unfolding slice_needs_28_def alias_needs_28_def by (simp add: pairs_check)

lemma needs_in_block_29: "needs_in_block 29 slice_needs_29 alias_needs_29"
  unfolding slice_needs_29_def alias_needs_29_def by (simp add: pairs_check)

lemma pairs_fit_29:
  "pairs_fit 29 [
    (725, 14), (726, 14), (727, 13), (728, 15), (729, 15), (730, 15), (731, 15), (732, 15),
    (733, 15), (734, 15), (735, 15), (736, 15), (737, 15), (738, 15), (739, 15), (740, 15),
    (741, 15), (742, 15), (743, 15), (744, 15), (745, 15), (746, 15), (747, 15), (748, 15),
    (749, 15)]
     slice_needs_29 alias_needs_29"
  unfolding slice_needs_29_def alias_needs_29_def by (simp add: pairs_check)

lemma needs_in_block_30: "needs_in_block 30 slice_needs_30 alias_needs_30"
  unfolding slice_needs_30_def alias_needs_30_def by (simp add: pairs_check)

lemma pairs_fit_30:
  "pairs_fit 30 [
    (750, 15), (751, 15), (752, 15), (753, 15), (754, 15), (755, 15), (756, 15), (757, 15),
    (758, 15), (759, 15), (760, 15), (761, 15), (762, 15), (763, 15), (764, 15), (765, 15),
    (766, 15), (767, 15), (768, 15), (769, 15), (770, 15), (771, 15), (772, 15), (773, 15),
    (774, 15)]
     slice_needs_30 alias_needs_30"
  unfolding slice_needs_30_def alias_needs_30_def by (simp add: pairs_check)

lemma needs_in_block_31: "needs_in_block 31 slice_needs_31 alias_needs_31"
  unfolding slice_needs_31_def alias_needs_31_def by (simp add: pairs_check)

lemma pairs_fit_31:
  "pairs_fit 31 [
    (775, 15), (776, 15), (777, 15), (778, 15), (779, 15), (780, 15), (781, 15), (782, 15),
    (783, 15), (784, 15), (785, 15), (786, 15), (787, 15), (788, 15), (789, 15), (790, 15),
    (791, 15), (792, 15), (793, 15), (794, 15), (795, 15), (796, 15), (797, 15), (798, 15),
    (799, 15)]
     slice_needs_31 alias_needs_31"
  unfolding slice_needs_31_def alias_needs_31_def by (simp add: pairs_check)

lemma needs_in_block_32: "needs_in_block 32 slice_needs_32 alias_needs_32"
  unfolding slice_needs_32_def alias_needs_32_def by (simp add: pairs_check)

lemma pairs_fit_32:
  "pairs_fit 32 [
    (800, 15), (801, 15), (802, 15), (803, 15), (804, 15), (805, 15), (806, 15), (807, 15),
    (808, 15), (809, 15), (810, 15), (811, 15), (812, 15), (813, 15), (814, 15), (815, 15),
    (816, 15), (817, 15), (818, 15), (819, 15), (820, 15), (821, 16), (822, 16), (823, 16),
    (824, 16)]
     slice_needs_32 alias_needs_32"
  unfolding slice_needs_32_def alias_needs_32_def by (simp add: pairs_check)

lemma needs_in_block_33: "needs_in_block 33 slice_needs_33 alias_needs_33"
  unfolding slice_needs_33_def alias_needs_33_def by (simp add: pairs_check)

lemma pairs_fit_33:
  "pairs_fit 33 [
    (825, 16), (826, 16), (827, 16), (828, 16), (829, 16), (830, 16), (831, 16), (832, 16),
    (833, 16), (834, 16), (835, 16), (836, 16), (837, 16), (838, 16), (839, 16), (840, 16),
    (841, 16), (842, 16), (843, 16), (844, 16), (845, 16), (846, 16), (847, 16), (848, 16),
    (849, 16)]
     slice_needs_33 alias_needs_33"
  unfolding slice_needs_33_def alias_needs_33_def by (simp add: pairs_check)

lemma needs_in_block_34: "needs_in_block 34 slice_needs_34 alias_needs_34"
  unfolding slice_needs_34_def alias_needs_34_def by (simp add: pairs_check)

lemma pairs_fit_34:
  "pairs_fit 34 [
    (850, 16), (851, 16), (852, 16), (853, 16), (854, 16), (855, 16), (856, 16), (857, 16),
    (858, 16), (859, 16), (860, 16), (861, 16), (862, 16), (863, 16), (864, 16), (865, 16),
    (866, 16), (867, 16), (868, 16), (869, 16), (870, 16), (871, 16), (872, 16), (873, 16),
    (874, 16)]
     slice_needs_34 alias_needs_34"
  unfolding slice_needs_34_def alias_needs_34_def by (simp add: pairs_check)

lemma needs_in_block_35: "needs_in_block 35 slice_needs_35 alias_needs_35"
  unfolding slice_needs_35_def alias_needs_35_def by (simp add: pairs_check)

lemma pairs_fit_35:
  "pairs_fit 35 [
    (875, 16), (876, 16), (877, 16), (878, 16), (879, 16), (880, 16), (881, 16), (882, 16),
    (883, 16), (884, 16), (885, 16), (886, 16), (887, 16), (888, 16), (889, 16), (890, 16),
    (891, 16), (892, 16), (893, 16), (894, 16), (895, 16), (896, 16), (897, 16), (898, 16),
    (899, 16)]
     slice_needs_35 alias_needs_35"
  unfolding slice_needs_35_def alias_needs_35_def by (simp add: pairs_check)

lemma needs_in_block_36: "needs_in_block 36 slice_needs_36 alias_needs_36"
  unfolding slice_needs_36_def alias_needs_36_def by (simp add: pairs_check)

lemma pairs_fit_36:
  "pairs_fit 36 [
    (900, 16), (901, 16), (902, 16), (903, 16), (904, 17), (905, 17), (906, 17), (907, 17),
    (908, 17), (909, 17), (910, 17), (911, 17), (912, 17), (913, 17), (914, 17), (915, 17),
    (916, 17), (917, 17), (918, 17), (919, 17), (920, 17), (921, 17), (922, 17), (923, 17),
    (924, 17)]
     slice_needs_36 alias_needs_36"
  unfolding slice_needs_36_def alias_needs_36_def by (simp add: pairs_check)

lemma needs_in_block_37: "needs_in_block 37 slice_needs_37 alias_needs_37"
  unfolding slice_needs_37_def alias_needs_37_def by (simp add: pairs_check)

lemma pairs_fit_37:
  "pairs_fit 37 [
    (925, 17), (926, 17), (927, 17), (928, 17), (929, 17), (930, 17), (931, 17), (932, 17),
    (933, 17), (934, 17), (935, 17), (936, 17), (937, 17), (938, 17), (939, 17), (940, 17),
    (941, 17), (942, 17), (943, 17), (944, 17), (945, 17), (946, 17), (947, 17), (948, 17),
    (949, 17)]
     slice_needs_37 alias_needs_37"
  unfolding slice_needs_37_def alias_needs_37_def by (simp add: pairs_check)

lemma needs_in_block_38: "needs_in_block 38 slice_needs_38 alias_needs_38"
  unfolding slice_needs_38_def alias_needs_38_def by (simp add: pairs_check)

lemma pairs_fit_38:
  "pairs_fit 38 [
    (950, 17), (951, 17), (952, 17), (953, 17), (954, 17), (955, 17), (956, 17), (957, 17),
    (958, 17), (959, 17), (960, 17), (961, 17), (962, 18), (963, 18), (964, 18), (965, 18),
    (966, 18), (967, 18), (968, 18), (969, 18), (970, 18), (971, 18), (972, 18), (973, 18),
    (974, 18)]
     slice_needs_38 alias_needs_38"
  unfolding slice_needs_38_def alias_needs_38_def by (simp add: pairs_check)

lemma needs_in_block_39: "needs_in_block 39 slice_needs_39 alias_needs_39"
  unfolding slice_needs_39_def alias_needs_39_def by (simp add: pairs_check)

lemma pairs_fit_39:
  "pairs_fit 39 [
    (975, 18), (976, 18), (977, 18), (978, 18), (979, 18), (980, 18), (981, 18), (982, 18),
    (983, 18), (984, 18), (985, 18), (986, 18), (987, 18), (988, 18), (989, 18), (990, 19),
    (991, 19), (992, 19), (993, 19), (994, 19), (995, 19), (996, 19), (997, 19), (998, 20)]
     slice_needs_39 alias_needs_39"
  unfolding slice_needs_39_def alias_needs_39_def by (simp add: pairs_check)

lemmas needs_in_blocks =
  needs_in_block_0 needs_in_block_1 needs_in_block_2 needs_in_block_3 needs_in_block_4
  needs_in_block_5 needs_in_block_6 needs_in_block_7 needs_in_block_8 needs_in_block_9
  needs_in_block_10 needs_in_block_11 needs_in_block_12 needs_in_block_13 needs_in_block_14
  needs_in_block_15 needs_in_block_16 needs_in_block_17 needs_in_block_18 needs_in_block_19
  needs_in_block_20 needs_in_block_21 needs_in_block_22 needs_in_block_23 needs_in_block_24
  needs_in_block_25 needs_in_block_26 needs_in_block_27 needs_in_block_28 needs_in_block_29
  needs_in_block_30 needs_in_block_31 needs_in_block_32 needs_in_block_33 needs_in_block_34
  needs_in_block_35 needs_in_block_36 needs_in_block_37 needs_in_block_38 needs_in_block_39

definition need_blocks :: "(nat \<times> slice_need list \<times> (nat \<times> nat) list) list" where
  "need_blocks = [
    (0, slice_needs_0, alias_needs_0), (1, slice_needs_1, alias_needs_1),
    (2, slice_needs_2, alias_needs_2), (3, slice_needs_3, alias_needs_3),
    (4, slice_needs_4, alias_needs_4), (5, slice_needs_5, alias_needs_5),
    (6, slice_needs_6, alias_needs_6), (7, slice_needs_7, alias_needs_7),
    (8, slice_needs_8, alias_needs_8), (9, slice_needs_9, alias_needs_9),
    (10, slice_needs_10, alias_needs_10), (11, slice_needs_11, alias_needs_11),
    (12, slice_needs_12, alias_needs_12), (13, slice_needs_13, alias_needs_13),
    (14, slice_needs_14, alias_needs_14), (15, slice_needs_15, alias_needs_15),
    (16, slice_needs_16, alias_needs_16), (17, slice_needs_17, alias_needs_17),
    (18, slice_needs_18, alias_needs_18), (19, slice_needs_19, alias_needs_19),
    (20, slice_needs_20, alias_needs_20), (21, slice_needs_21, alias_needs_21),
    (22, slice_needs_22, alias_needs_22), (23, slice_needs_23, alias_needs_23),
    (24, slice_needs_24, alias_needs_24), (25, slice_needs_25, alias_needs_25),
    (26, slice_needs_26, alias_needs_26), (27, slice_needs_27, alias_needs_27),
    (28, slice_needs_28, alias_needs_28), (29, slice_needs_29, alias_needs_29),
    (30, slice_needs_30, alias_needs_30), (31, slice_needs_31, alias_needs_31),
    (32, slice_needs_32, alias_needs_32), (33, slice_needs_33, alias_needs_33),
    (34, slice_needs_34, alias_needs_34), (35, slice_needs_35, alias_needs_35),
    (36, slice_needs_36, alias_needs_36), (37, slice_needs_37, alias_needs_37),
    (38, slice_needs_38, alias_needs_38), (39, slice_needs_39, alias_needs_39)]"

lemma needs_blocks:
  "slice_needs = concat (map (fst \<circ> snd) need_blocks)"
  "alias_needs = concat (map (snd \<circ> snd) need_blocks)"
  by (simp_all add: slice_needs_def alias_needs_def need_blocks_def)

lemma blocks_in_block: "list_all (\<lambda>(b, ss, as). needs_in_block b ss as) need_blocks"
  unfolding need_blocks_def by (simp add: needs_in_blocks del: One_nat_def)

lemma distinct_blocks: "distinct (map fst need_blocks)"
  unfolding need_blocks_def by simp

lemma block_of:
  assumes "(b, ss, as) \<in> set need_blocks" "in_block b p"
  shows "(p, i, n, c) \<in> set slice_needs \<Longrightarrow> (p, i, n, c) \<in> set ss"
    and "(p, k) \<in> set alias_needs \<Longrightarrow> (p, k) \<in> set as"
proof -
  have same: "ss' = ss \<and> as' = as" if d: "(d, ss', as') \<in> set need_blocks" "in_block d p" for d ss' as'
    using eq_key_imp_eq_value [OF distinct_blocks assms(1)] d assms(2) by (force simp: in_block_def)
  have keys: "in_block d q" if "(d, ss', as') \<in> set need_blocks" "x \<in> set ss' \<and> fst x = q \<or> y \<in> set as' \<and> fst y = q"
    for d ss' as' x y q
    using blocks_in_block that by (fastforce simp: list_all_iff needs_in_block_def)
  show "(p, i, n, c) \<in> set ss" if "(p, i, n, c) \<in> set slice_needs"
    using that same keys unfolding needs_blocks by fastforce
  show "(p, k) \<in> set as" if "(p, k) \<in> set alias_needs"
    using that same keys unfolding needs_blocks by fastforce
qed

lemma pairs_fit_fits:
  assumes "pairs_fit b ps ss as" "(b, ss, as) \<in> set need_blocks"
  shows "list_all (\<lambda>(p, k). production_fits p k) ps"
proof -
  have "production_fits p k" if "(p, k) \<in> set ps" for p k
  proof -
    from assms(1) that have b: "in_block b p" "p < PRODUCTION_ID_COUNT"
      "\<forall>(q, i, n, c)\<in>set ss. q = p \<longrightarrow> c \<le> k" "\<forall>(q, c)\<in>set as. q = p \<longrightarrow> c \<le> k"
      by (auto simp: pairs_fit_def list_all_iff)
    then show ?thesis using block_of [OF assms(2) b(1)]
      by (fastforce simp: production_fits_def intro!: fields_fitI aliases_fitI)
  qed
  then show ?thesis by (auto simp: list_all_iff)
qed

lemma need_blocks_mem:
  "(0, slice_needs_0, alias_needs_0) \<in> set need_blocks"
  "(1, slice_needs_1, alias_needs_1) \<in> set need_blocks"
  "(2, slice_needs_2, alias_needs_2) \<in> set need_blocks"
  "(3, slice_needs_3, alias_needs_3) \<in> set need_blocks"
  "(4, slice_needs_4, alias_needs_4) \<in> set need_blocks"
  "(5, slice_needs_5, alias_needs_5) \<in> set need_blocks"
  "(6, slice_needs_6, alias_needs_6) \<in> set need_blocks"
  "(7, slice_needs_7, alias_needs_7) \<in> set need_blocks"
  "(8, slice_needs_8, alias_needs_8) \<in> set need_blocks"
  "(9, slice_needs_9, alias_needs_9) \<in> set need_blocks"
  "(10, slice_needs_10, alias_needs_10) \<in> set need_blocks"
  "(11, slice_needs_11, alias_needs_11) \<in> set need_blocks"
  "(12, slice_needs_12, alias_needs_12) \<in> set need_blocks"
  "(13, slice_needs_13, alias_needs_13) \<in> set need_blocks"
  "(14, slice_needs_14, alias_needs_14) \<in> set need_blocks"
  "(15, slice_needs_15, alias_needs_15) \<in> set need_blocks"
  "(16, slice_needs_16, alias_needs_16) \<in> set need_blocks"
  "(17, slice_needs_17, alias_needs_17) \<in> set need_blocks"
  "(18, slice_needs_18, alias_needs_18) \<in> set need_blocks"
  "(19, slice_needs_19, alias_needs_19) \<in> set need_blocks"
  "(20, slice_needs_20, alias_needs_20) \<in> set need_blocks"
  "(21, slice_needs_21, alias_needs_21) \<in> set need_blocks"
  "(22, slice_needs_22, alias_needs_22) \<in> set need_blocks"
  "(23, slice_needs_23, alias_needs_23) \<in> set need_blocks"
  "(24, slice_needs_24, alias_needs_24) \<in> set need_blocks"
  "(25, slice_needs_25, alias_needs_25) \<in> set need_blocks"
  "(26, slice_needs_26, alias_needs_26) \<in> set need_blocks"
  "(27, slice_needs_27, alias_needs_27) \<in> set need_blocks"
  "(28, slice_needs_28, alias_needs_28) \<in> set need_blocks"
  "(29, slice_needs_29, alias_needs_29) \<in> set need_blocks"
  "(30, slice_needs_30, alias_needs_30) \<in> set need_blocks"
  "(31, slice_needs_31, alias_needs_31) \<in> set need_blocks"
  "(32, slice_needs_32, alias_needs_32) \<in> set need_blocks"
  "(33, slice_needs_33, alias_needs_33) \<in> set need_blocks"
  "(34, slice_needs_34, alias_needs_34) \<in> set need_blocks"
  "(35, slice_needs_35, alias_needs_35) \<in> set need_blocks"
  "(36, slice_needs_36, alias_needs_36) \<in> set need_blocks"
  "(37, slice_needs_37, alias_needs_37) \<in> set need_blocks"
  "(38, slice_needs_38, alias_needs_38) \<in> set need_blocks"
  "(39, slice_needs_39, alias_needs_39) \<in> set need_blocks"
  by (simp_all add: need_blocks_def)

lemma fits_0:
  "production_fits 0 0 \<and> production_fits 0 1 \<and> production_fits 0 2 \<and>
   production_fits 0 3 \<and> production_fits 0 4 \<and> production_fits 0 5 \<and>
   production_fits 0 6 \<and> production_fits 0 7 \<and> production_fits 1 1 \<and>
   production_fits 1 2 \<and> production_fits 2 1 \<and> production_fits 3 1 \<and>
   production_fits 3 2 \<and> production_fits 4 2 \<and> production_fits 5 2 \<and>
   production_fits 5 3 \<and> production_fits 5 4 \<and> production_fits 6 2 \<and>
   production_fits 6 3 \<and> production_fits 7 1 \<and> production_fits 7 2 \<and>
   production_fits 7 3 \<and> production_fits 8 2 \<and> production_fits 8 4 \<and>
   production_fits 8 5 \<and> production_fits 9 2 \<and> production_fits 10 2 \<and>
   production_fits 11 2 \<and> production_fits 12 2 \<and> production_fits 13 2 \<and>
   production_fits 13 3 \<and> production_fits 14 3 \<and> production_fits 14 4 \<and>
   production_fits 15 3 \<and> production_fits 15 4 \<and> production_fits 16 3 \<and>
   production_fits 17 3 \<and> production_fits 18 3 \<and> production_fits 19 3 \<and>
   production_fits 20 3 \<and> production_fits 21 3 \<and> production_fits 22 3 \<and>
   production_fits 23 3 \<and> production_fits 24 3"
  using pairs_fit_fits [OF pairs_fit_0 need_blocks_mem(1)] by simp

lemma fits_1:
  "production_fits 25 2 \<and> production_fits 26 3 \<and> production_fits 27 2 \<and>
   production_fits 28 3 \<and> production_fits 29 3 \<and> production_fits 29 4 \<and>
   production_fits 30 2 \<and> production_fits 31 2 \<and> production_fits 32 3 \<and>
   production_fits 33 4 \<and> production_fits 34 4 \<and> production_fits 35 4 \<and>
   production_fits 36 2 \<and> production_fits 36 3 \<and> production_fits 36 4 \<and>
   production_fits 36 5 \<and> production_fits 36 6 \<and> production_fits 37 4 \<and>
   production_fits 38 2 \<and> production_fits 39 4 \<and> production_fits 40 4 \<and>
   production_fits 40 5 \<and> production_fits 41 4 \<and> production_fits 42 4 \<and>
   production_fits 43 4 \<and> production_fits 44 2 \<and> production_fits 45 4 \<and>
   production_fits 46 2 \<and> production_fits 47 4 \<and> production_fits 48 3 \<and>
   production_fits 48 4 \<and> production_fits 48 5 \<and> production_fits 48 6 \<and>
   production_fits 49 4"
  using pairs_fit_fits [OF pairs_fit_1 need_blocks_mem(2)] by simp

lemma fits_2:
  "production_fits 50 3 \<and> production_fits 51 3 \<and> production_fits 52 3 \<and>
   production_fits 53 4 \<and> production_fits 54 4 \<and> production_fits 54 5 \<and>
   production_fits 55 4 \<and> production_fits 55 5 \<and> production_fits 56 1 \<and>
   production_fits 57 4 \<and> production_fits 58 4 \<and> production_fits 59 5 \<and>
   production_fits 60 5 \<and> production_fits 61 5 \<and> production_fits 62 1 \<and>
   production_fits 63 5 \<and> production_fits 64 5 \<and> production_fits 65 5 \<and>
   production_fits 66 5 \<and> production_fits 67 5 \<and> production_fits 68 5 \<and>
   production_fits 69 5 \<and> production_fits 70 5 \<and> production_fits 71 4 \<and>
   production_fits 71 5 \<and> production_fits 71 6 \<and> production_fits 71 7 \<and>
   production_fits 72 5 \<and> production_fits 73 2 \<and> production_fits 74 2"
  using pairs_fit_fits [OF pairs_fit_2 need_blocks_mem(3)] by simp

lemma fits_3:
  "production_fits 75 4 \<and> production_fits 75 5 \<and> production_fits 76 3 \<and>
   production_fits 76 4 \<and> production_fits 76 5 \<and> production_fits 76 6 \<and>
   production_fits 77 4 \<and> production_fits 77 5 \<and> production_fits 78 5 \<and>
   production_fits 79 5 \<and> production_fits 80 4 \<and> production_fits 81 5 \<and>
   production_fits 82 3 \<and> production_fits 83 3 \<and> production_fits 84 2 \<and>
   production_fits 85 2 \<and> production_fits 86 5 \<and> production_fits 86 6 \<and>
   production_fits 87 2 \<and> production_fits 88 5 \<and> production_fits 88 6 \<and>
   production_fits 89 5 \<and> production_fits 90 5 \<and> production_fits 91 5 \<and>
   production_fits 92 6 \<and> production_fits 93 6 \<and> production_fits 94 4 \<and>
   production_fits 94 5 \<and> production_fits 95 2 \<and> production_fits 96 4 \<and>
   production_fits 96 5 \<and> production_fits 97 6 \<and> production_fits 98 6 \<and>
   production_fits 99 6"
  using pairs_fit_fits [OF pairs_fit_3 need_blocks_mem(4)] by simp

lemma fits_4:
  "production_fits 100 2 \<and> production_fits 101 6 \<and> production_fits 102 6 \<and>
   production_fits 103 3 \<and> production_fits 104 6 \<and> production_fits 105 6 \<and>
   production_fits 106 6 \<and> production_fits 107 6 \<and> production_fits 108 6 \<and>
   production_fits 109 3 \<and> production_fits 110 6 \<and> production_fits 111 6 \<and>
   production_fits 112 6 \<and> production_fits 113 5 \<and> production_fits 114 5 \<and>
   production_fits 114 6 \<and> production_fits 114 7 \<and> production_fits 115 5 \<and>
   production_fits 115 6 \<and> production_fits 116 2 \<and> production_fits 117 5 \<and>
   production_fits 117 6 \<and> production_fits 117 7 \<and> production_fits 118 2 \<and>
   production_fits 119 5 \<and> production_fits 119 6 \<and> production_fits 120 5 \<and>
   production_fits 120 6 \<and> production_fits 120 7 \<and> production_fits 121 6 \<and>
   production_fits 122 6 \<and> production_fits 123 6 \<and> production_fits 124 6"
  using pairs_fit_fits [OF pairs_fit_4 need_blocks_mem(5)] by simp

lemma fits_5:
  "production_fits 125 5 \<and> production_fits 126 6 \<and> production_fits 127 5 \<and>
   production_fits 127 6 \<and> production_fits 128 5 \<and> production_fits 128 6 \<and>
   production_fits 129 4 \<and> production_fits 129 5 \<and> production_fits 129 6 \<and>
   production_fits 130 4 \<and> production_fits 130 5 \<and> production_fits 130 6 \<and>
   production_fits 131 4 \<and> production_fits 131 5 \<and> production_fits 131 6 \<and>
   production_fits 131 7 \<and> production_fits 132 5 \<and> production_fits 132 6 \<and>
   production_fits 133 7 \<and> production_fits 134 7 \<and> production_fits 135 7 \<and>
   production_fits 136 7 \<and> production_fits 137 7 \<and> production_fits 138 7 \<and>
   production_fits 139 7 \<and> production_fits 140 7 \<and> production_fits 141 7 \<and>
   production_fits 142 4 \<and> production_fits 143 7 \<and> production_fits 144 7 \<and>
   production_fits 145 7 \<and> production_fits 146 7 \<and> production_fits 147 7 \<and>
   production_fits 148 7 \<and> production_fits 149 7"
  using pairs_fit_fits [OF pairs_fit_5 need_blocks_mem(6)] by simp

lemma fits_6:
  "production_fits 150 7 \<and> production_fits 151 7 \<and> production_fits 152 6 \<and>
   production_fits 153 6 \<and> production_fits 154 6 \<and> production_fits 154 7 \<and>
   production_fits 155 6 \<and> production_fits 155 7 \<and> production_fits 155 8 \<and>
   production_fits 156 6 \<and> production_fits 157 6 \<and> production_fits 157 7 \<and>
   production_fits 158 6 \<and> production_fits 158 7 \<and> production_fits 159 6 \<and>
   production_fits 160 6 \<and> production_fits 160 7 \<and> production_fits 160 8 \<and>
   production_fits 161 6 \<and> production_fits 161 7 \<and> production_fits 162 6 \<and>
   production_fits 162 7 \<and> production_fits 162 8 \<and> production_fits 163 7 \<and>
   production_fits 164 6 \<and> production_fits 165 6 \<and> production_fits 165 7 \<and>
   production_fits 166 6 \<and> production_fits 166 7 \<and> production_fits 167 6 \<and>
   production_fits 167 7 \<and> production_fits 168 6 \<and> production_fits 168 7 \<and>
   production_fits 169 6 \<and> production_fits 169 7 \<and> production_fits 170 2 \<and>
   production_fits 170 3 \<and> production_fits 170 4 \<and> production_fits 171 4 \<and>
   production_fits 172 8 \<and> production_fits 173 8 \<and> production_fits 174 8"
  using pairs_fit_fits [OF pairs_fit_6 need_blocks_mem(7)] by simp

lemma fits_7:
  "production_fits 175 8 \<and> production_fits 176 8 \<and> production_fits 177 8 \<and>
   production_fits 178 8 \<and> production_fits 179 8 \<and> production_fits 180 8 \<and>
   production_fits 181 8 \<and> production_fits 182 8 \<and> production_fits 183 8 \<and>
   production_fits 184 8 \<and> production_fits 185 8 \<and> production_fits 186 8 \<and>
   production_fits 187 8 \<and> production_fits 188 8 \<and> production_fits 189 8 \<and>
   production_fits 190 8 \<and> production_fits 191 8 \<and> production_fits 192 8 \<and>
   production_fits 193 8 \<and> production_fits 194 8 \<and> production_fits 195 8 \<and>
   production_fits 196 8 \<and> production_fits 197 8 \<and> production_fits 198 8 \<and>
   production_fits 199 8"
  using pairs_fit_fits [OF pairs_fit_7 need_blocks_mem(8)] by simp

lemma fits_8:
  "production_fits 200 8 \<and> production_fits 201 7 \<and> production_fits 202 7 \<and>
   production_fits 203 7 \<and> production_fits 204 7 \<and> production_fits 204 8 \<and>
   production_fits 205 7 \<and> production_fits 205 8 \<and> production_fits 206 7 \<and>
   production_fits 207 7 \<and> production_fits 208 7 \<and> production_fits 209 7 \<and>
   production_fits 209 8 \<and> production_fits 210 7 \<and> production_fits 211 7 \<and>
   production_fits 212 7 \<and> production_fits 212 8 \<and> production_fits 213 7 \<and>
   production_fits 213 8 \<and> production_fits 213 9 \<and> production_fits 214 7 \<and>
   production_fits 215 7 \<and> production_fits 215 8 \<and> production_fits 216 7 \<and>
   production_fits 216 8 \<and> production_fits 217 7 \<and> production_fits 217 8 \<and>
   production_fits 218 6 \<and> production_fits 218 7 \<and> production_fits 218 8 \<and>
   production_fits 219 7 \<and> production_fits 219 8 \<and> production_fits 220 4 \<and>
   production_fits 220 5 \<and> production_fits 221 2 \<and> production_fits 222 4 \<and>
   production_fits 222 5 \<and> production_fits 223 5 \<and> production_fits 224 5"
  using pairs_fit_fits [OF pairs_fit_8 need_blocks_mem(9)] by simp

lemma fits_9:
  "production_fits 225 5 \<and> production_fits 226 9 \<and> production_fits 227 9 \<and>
   production_fits 228 9 \<and> production_fits 229 9 \<and> production_fits 230 9 \<and>
   production_fits 231 9 \<and> production_fits 232 9 \<and> production_fits 233 9 \<and>
   production_fits 234 9 \<and> production_fits 235 9 \<and> production_fits 236 9 \<and>
   production_fits 237 9 \<and> production_fits 238 9 \<and> production_fits 239 9 \<and>
   production_fits 240 9 \<and> production_fits 241 9 \<and> production_fits 242 9 \<and>
   production_fits 243 9 \<and> production_fits 244 9 \<and> production_fits 245 6 \<and>
   production_fits 246 9 \<and> production_fits 247 9 \<and> production_fits 248 9 \<and>
   production_fits 249 9"
  using pairs_fit_fits [OF pairs_fit_9 need_blocks_mem(10)] by simp

lemma fits_10:
  "production_fits 250 9 \<and> production_fits 251 9 \<and> production_fits 252 9 \<and>
   production_fits 253 9 \<and> production_fits 254 9 \<and> production_fits 255 9 \<and>
   production_fits 256 9 \<and> production_fits 257 9 \<and> production_fits 258 9 \<and>
   production_fits 259 9 \<and> production_fits 260 9 \<and> production_fits 261 9 \<and>
   production_fits 262 9 \<and> production_fits 263 9 \<and> production_fits 264 9 \<and>
   production_fits 265 9 \<and> production_fits 266 9 \<and> production_fits 267 9 \<and>
   production_fits 268 9 \<and> production_fits 269 8 \<and> production_fits 270 8 \<and>
   production_fits 271 8 \<and> production_fits 272 8 \<and> production_fits 273 8 \<and>
   production_fits 273 9 \<and> production_fits 274 8"
  using pairs_fit_fits [OF pairs_fit_10 need_blocks_mem(11)] by simp

lemma fits_11:
  "production_fits 275 8 \<and> production_fits 276 8 \<and> production_fits 277 8 \<and>
   production_fits 278 8 \<and> production_fits 279 8 \<and> production_fits 280 8 \<and>
   production_fits 281 8 \<and> production_fits 282 8 \<and> production_fits 282 9 \<and>
   production_fits 283 8 \<and> production_fits 283 9 \<and> production_fits 284 8 \<and>
   production_fits 285 8 \<and> production_fits 286 8 \<and> production_fits 287 8 \<and>
   production_fits 287 9 \<and> production_fits 288 8 \<and> production_fits 288 9 \<and>
   production_fits 289 6 \<and> production_fits 290 6 \<and> production_fits 291 6 \<and>
   production_fits 292 6 \<and> production_fits 293 10 \<and> production_fits 294 10 \<and>
   production_fits 295 10 \<and> production_fits 296 10 \<and> production_fits 297 10 \<and>
   production_fits 298 10 \<and> production_fits 299 10"
  using pairs_fit_fits [OF pairs_fit_11 need_blocks_mem(12)] by simp

lemma fits_12:
  "production_fits 300 10 \<and> production_fits 301 10 \<and> production_fits 302 10 \<and>
   production_fits 303 10 \<and> production_fits 304 10 \<and> production_fits 305 10 \<and>
   production_fits 306 10 \<and> production_fits 307 10 \<and> production_fits 308 10 \<and>
   production_fits 309 10 \<and> production_fits 310 10 \<and> production_fits 311 10 \<and>
   production_fits 312 10 \<and> production_fits 313 10 \<and> production_fits 314 10 \<and>
   production_fits 315 10 \<and> production_fits 316 10 \<and> production_fits 317 10 \<and>
   production_fits 318 10 \<and> production_fits 319 10 \<and> production_fits 320 10 \<and>
   production_fits 321 10 \<and> production_fits 322 10 \<and> production_fits 323 10 \<and>
   production_fits 324 10"
  using pairs_fit_fits [OF pairs_fit_12 need_blocks_mem(13)] by simp

lemma fits_13:
  "production_fits 325 10 \<and> production_fits 326 10 \<and> production_fits 327 10 \<and>
   production_fits 328 10 \<and> production_fits 329 10 \<and> production_fits 330 10 \<and>
   production_fits 331 10 \<and> production_fits 332 10 \<and> production_fits 333 10 \<and>
   production_fits 334 10 \<and> production_fits 335 10 \<and> production_fits 336 10 \<and>
   production_fits 337 10 \<and> production_fits 338 10 \<and> production_fits 339 10 \<and>
   production_fits 340 10 \<and> production_fits 341 10 \<and> production_fits 342 10 \<and>
   production_fits 343 10 \<and> production_fits 344 10 \<and> production_fits 345 10 \<and>
   production_fits 346 9 \<and> production_fits 347 9 \<and> production_fits 348 9 \<and>
   production_fits 349 9"
  using pairs_fit_fits [OF pairs_fit_13 need_blocks_mem(14)] by simp

lemma fits_14:
  "production_fits 350 9 \<and> production_fits 351 9 \<and> production_fits 352 9 \<and>
   production_fits 353 9 \<and> production_fits 354 9 \<and> production_fits 355 9 \<and>
   production_fits 356 9 \<and> production_fits 357 9 \<and> production_fits 358 9 \<and>
   production_fits 359 9 \<and> production_fits 360 9 \<and> production_fits 361 9 \<and>
   production_fits 361 10 \<and> production_fits 362 9 \<and> production_fits 363 9 \<and>
   production_fits 364 9 \<and> production_fits 365 9 \<and> production_fits 366 9 \<and>
   production_fits 367 7 \<and> production_fits 368 7 \<and> production_fits 369 7 \<and>
   production_fits 370 11 \<and> production_fits 371 11 \<and> production_fits 372 11 \<and>
   production_fits 373 11 \<and> production_fits 374 11"
  using pairs_fit_fits [OF pairs_fit_14 need_blocks_mem(15)] by simp

lemma fits_15:
  "production_fits 375 11 \<and> production_fits 376 11 \<and> production_fits 377 11 \<and>
   production_fits 378 11 \<and> production_fits 379 11 \<and> production_fits 380 11 \<and>
   production_fits 381 11 \<and> production_fits 382 11 \<and> production_fits 383 11 \<and>
   production_fits 384 11 \<and> production_fits 385 11 \<and> production_fits 386 11 \<and>
   production_fits 387 11 \<and> production_fits 388 11 \<and> production_fits 389 11 \<and>
   production_fits 390 11 \<and> production_fits 391 11 \<and> production_fits 392 11 \<and>
   production_fits 393 11 \<and> production_fits 394 11 \<and> production_fits 395 11 \<and>
   production_fits 396 11 \<and> production_fits 397 11 \<and> production_fits 398 11 \<and>
   production_fits 399 11"
  using pairs_fit_fits [OF pairs_fit_15 need_blocks_mem(16)] by simp

lemma fits_16:
  "production_fits 400 11 \<and> production_fits 401 11 \<and> production_fits 402 11 \<and>
   production_fits 403 11 \<and> production_fits 404 11 \<and> production_fits 405 11 \<and>
   production_fits 406 11 \<and> production_fits 407 11 \<and> production_fits 408 11 \<and>
   production_fits 409 11 \<and> production_fits 410 11 \<and> production_fits 411 11 \<and>
   production_fits 412 11 \<and> production_fits 413 11 \<and> production_fits 414 11 \<and>
   production_fits 415 11 \<and> production_fits 416 11 \<and> production_fits 417 11 \<and>
   production_fits 418 11 \<and> production_fits 419 11 \<and> production_fits 420 11 \<and>
   production_fits 421 11 \<and> production_fits 422 11 \<and> production_fits 423 11 \<and>
   production_fits 424 11"
  using pairs_fit_fits [OF pairs_fit_16 need_blocks_mem(17)] by simp

lemma fits_17:
  "production_fits 425 11 \<and> production_fits 426 11 \<and> production_fits 427 11 \<and>
   production_fits 428 11 \<and> production_fits 429 11 \<and> production_fits 430 11 \<and>
   production_fits 431 11 \<and> production_fits 432 11 \<and> production_fits 433 11 \<and>
   production_fits 434 10 \<and> production_fits 435 10 \<and> production_fits 436 10 \<and>
   production_fits 437 10 \<and> production_fits 438 10 \<and> production_fits 439 10 \<and>
   production_fits 440 10 \<and> production_fits 441 10 \<and> production_fits 442 10 \<and>
   production_fits 443 10 \<and> production_fits 444 10 \<and> production_fits 445 10 \<and>
   production_fits 446 10 \<and> production_fits 447 10 \<and> production_fits 448 10 \<and>
   production_fits 449 10"
  using pairs_fit_fits [OF pairs_fit_17 need_blocks_mem(18)] by simp

lemma fits_18:
  "production_fits 450 10 \<and> production_fits 451 10 \<and> production_fits 452 10 \<and>
   production_fits 453 10 \<and> production_fits 454 10 \<and> production_fits 455 8 \<and>
   production_fits 456 12 \<and> production_fits 457 12 \<and> production_fits 458 12 \<and>
   production_fits 459 12 \<and> production_fits 460 12 \<and> production_fits 461 12 \<and>
   production_fits 462 12 \<and> production_fits 463 12 \<and> production_fits 464 12 \<and>
   production_fits 465 12 \<and> production_fits 466 12 \<and> production_fits 467 12 \<and>
   production_fits 468 12 \<and> production_fits 469 12 \<and> production_fits 470 12 \<and>
   production_fits 471 12 \<and> production_fits 472 12 \<and> production_fits 473 12 \<and>
   production_fits 474 12"
  using pairs_fit_fits [OF pairs_fit_18 need_blocks_mem(19)] by simp

lemma fits_19:
  "production_fits 475 12 \<and> production_fits 476 12 \<and> production_fits 477 12 \<and>
   production_fits 478 12 \<and> production_fits 479 12 \<and> production_fits 480 12 \<and>
   production_fits 481 12 \<and> production_fits 482 12 \<and> production_fits 483 12 \<and>
   production_fits 484 12 \<and> production_fits 485 12 \<and> production_fits 486 12 \<and>
   production_fits 487 12 \<and> production_fits 488 12 \<and> production_fits 489 12 \<and>
   production_fits 490 12 \<and> production_fits 491 12 \<and> production_fits 492 12 \<and>
   production_fits 493 12 \<and> production_fits 494 12 \<and> production_fits 495 12 \<and>
   production_fits 496 12 \<and> production_fits 497 12 \<and> production_fits 498 12 \<and>
   production_fits 499 12"
  using pairs_fit_fits [OF pairs_fit_19 need_blocks_mem(20)] by simp

lemma fits_20:
  "production_fits 500 12 \<and> production_fits 501 12 \<and> production_fits 502 12 \<and>
   production_fits 503 12 \<and> production_fits 504 12 \<and> production_fits 505 12 \<and>
   production_fits 506 12 \<and> production_fits 507 12 \<and> production_fits 508 12 \<and>
   production_fits 509 12 \<and> production_fits 510 12 \<and> production_fits 511 12 \<and>
   production_fits 512 12 \<and> production_fits 513 12 \<and> production_fits 514 12 \<and>
   production_fits 515 12 \<and> production_fits 516 12 \<and> production_fits 517 12 \<and>
   production_fits 518 12 \<and> production_fits 519 12 \<and> production_fits 520 12 \<and>
   production_fits 521 12 \<and> production_fits 522 12 \<and> production_fits 523 12 \<and>
   production_fits 524 12"
  using pairs_fit_fits [OF pairs_fit_20 need_blocks_mem(21)] by simp

lemma fits_21:
  "production_fits 525 12 \<and> production_fits 526 12 \<and> production_fits 527 12 \<and>
   production_fits 528 12 \<and> production_fits 529 12 \<and> production_fits 530 12 \<and>
   production_fits 531 11 \<and> production_fits 532 11 \<and> production_fits 533 11 \<and>
   production_fits 534 11 \<and> production_fits 535 11 \<and> production_fits 536 11 \<and>
   production_fits 537 11 \<and> production_fits 538 11 \<and> production_fits 539 11 \<and>
   production_fits 540 11 \<and> production_fits 541 11 \<and> production_fits 542 11 \<and>
   production_fits 543 11 \<and> production_fits 544 11 \<and> production_fits 545 11 \<and>
   production_fits 546 13 \<and> production_fits 547 13 \<and> production_fits 548 13 \<and>
   production_fits 549 13"
  using pairs_fit_fits [OF pairs_fit_21 need_blocks_mem(22)] by simp

lemma fits_22:
  "production_fits 550 13 \<and> production_fits 551 13 \<and> production_fits 552 13 \<and>
   production_fits 553 13 \<and> production_fits 554 13 \<and> production_fits 555 13 \<and>
   production_fits 556 13 \<and> production_fits 557 13 \<and> production_fits 558 13 \<and>
   production_fits 559 13 \<and> production_fits 560 13 \<and> production_fits 561 13 \<and>
   production_fits 562 13 \<and> production_fits 563 13 \<and> production_fits 564 13 \<and>
   production_fits 565 13 \<and> production_fits 566 13 \<and> production_fits 567 13 \<and>
   production_fits 568 13 \<and> production_fits 569 13 \<and> production_fits 570 13 \<and>
   production_fits 571 13 \<and> production_fits 572 13 \<and> production_fits 573 13 \<and>
   production_fits 574 13"
  using pairs_fit_fits [OF pairs_fit_22 need_blocks_mem(23)] by simp

lemma fits_23:
  "production_fits 575 13 \<and> production_fits 576 13 \<and> production_fits 577 13 \<and>
   production_fits 578 13 \<and> production_fits 579 13 \<and> production_fits 580 13 \<and>
   production_fits 581 13 \<and> production_fits 582 13 \<and> production_fits 583 13 \<and>
   production_fits 584 13 \<and> production_fits 585 13 \<and> production_fits 586 13 \<and>
   production_fits 587 13 \<and> production_fits 588 13 \<and> production_fits 589 13 \<and>
   production_fits 590 13 \<and> production_fits 591 13 \<and> production_fits 592 13 \<and>
   production_fits 593 13 \<and> production_fits 594 13 \<and> production_fits 595 13 \<and>
   production_fits 596 13 \<and> production_fits 597 13 \<and> production_fits 598 13 \<and>
   production_fits 599 13"
  using pairs_fit_fits [OF pairs_fit_23 need_blocks_mem(24)] by simp

lemma fits_24:
  "production_fits 600 13 \<and> production_fits 601 13 \<and> production_fits 602 13 \<and>
   production_fits 603 13 \<and> production_fits 604 13 \<and> production_fits 605 13 \<and>
   production_fits 606 13 \<and> production_fits 607 13 \<and> production_fits 608 13 \<and>
   production_fits 609 13 \<and> production_fits 610 13 \<and> production_fits 611 13 \<and>
   production_fits 612 13 \<and> production_fits 613 13 \<and> production_fits 614 13 \<and>
   production_fits 615 13 \<and> production_fits 616 13 \<and> production_fits 617 13 \<and>
   production_fits 618 13 \<and> production_fits 619 13 \<and> production_fits 620 13 \<and>
   production_fits 621 13 \<and> production_fits 622 13 \<and> production_fits 623 13 \<and>
   production_fits 624 13"
  using pairs_fit_fits [OF pairs_fit_24 need_blocks_mem(25)] by simp

lemma fits_25:
  "production_fits 625 13 \<and> production_fits 626 13 \<and> production_fits 627 13 \<and>
   production_fits 628 13 \<and> production_fits 629 13 \<and> production_fits 630 12 \<and>
   production_fits 631 12 \<and> production_fits 632 12 \<and> production_fits 633 12 \<and>
   production_fits 634 12 \<and> production_fits 635 12 \<and> production_fits 636 14 \<and>
   production_fits 637 14 \<and> production_fits 638 14 \<and> production_fits 639 14 \<and>
   production_fits 640 14 \<and> production_fits 641 14 \<and> production_fits 642 14 \<and>
   production_fits 643 14 \<and> production_fits 644 14 \<and> production_fits 645 14 \<and>
   production_fits 646 14 \<and> production_fits 647 14 \<and> production_fits 648 14 \<and>
   production_fits 649 14"
  using pairs_fit_fits [OF pairs_fit_25 need_blocks_mem(26)] by simp

lemma fits_26:
  "production_fits 650 14 \<and> production_fits 651 14 \<and> production_fits 652 14 \<and>
   production_fits 653 14 \<and> production_fits 654 14 \<and> production_fits 655 14 \<and>
   production_fits 656 14 \<and> production_fits 657 14 \<and> production_fits 658 14 \<and>
   production_fits 659 14 \<and> production_fits 660 14 \<and> production_fits 661 14 \<and>
   production_fits 662 14 \<and> production_fits 663 14 \<and> production_fits 664 14 \<and>
   production_fits 665 14 \<and> production_fits 666 14 \<and> production_fits 667 14 \<and>
   production_fits 668 14 \<and> production_fits 669 14 \<and> production_fits 670 14 \<and>
   production_fits 671 14 \<and> production_fits 672 14 \<and> production_fits 673 14 \<and>
   production_fits 674 14"
  using pairs_fit_fits [OF pairs_fit_26 need_blocks_mem(27)] by simp

lemma fits_27:
  "production_fits 675 14 \<and> production_fits 676 14 \<and> production_fits 677 14 \<and>
   production_fits 678 14 \<and> production_fits 679 14 \<and> production_fits 680 14 \<and>
   production_fits 681 14 \<and> production_fits 682 14 \<and> production_fits 683 14 \<and>
   production_fits 684 14 \<and> production_fits 685 14 \<and> production_fits 686 14 \<and>
   production_fits 687 14 \<and> production_fits 688 14 \<and> production_fits 689 14 \<and>
   production_fits 690 14 \<and> production_fits 691 14 \<and> production_fits 692 14 \<and>
   production_fits 693 14 \<and> production_fits 694 14 \<and> production_fits 695 14 \<and>
   production_fits 696 14 \<and> production_fits 697 14 \<and> production_fits 698 14 \<and>
   production_fits 699 14"
  using pairs_fit_fits [OF pairs_fit_27 need_blocks_mem(28)] by simp

lemma fits_28:
  "production_fits 700 14 \<and> production_fits 701 14 \<and> production_fits 702 14 \<and>
   production_fits 703 14 \<and> production_fits 704 14 \<and> production_fits 705 14 \<and>
   production_fits 706 14 \<and> production_fits 707 14 \<and> production_fits 708 14 \<and>
   production_fits 709 14 \<and> production_fits 710 14 \<and> production_fits 711 14 \<and>
   production_fits 712 14 \<and> production_fits 713 14 \<and> production_fits 714 14 \<and>
   production_fits 715 14 \<and> production_fits 716 14 \<and> production_fits 717 14 \<and>
   production_fits 718 14 \<and> production_fits 719 14 \<and> production_fits 720 14 \<and>
   production_fits 721 14 \<and> production_fits 722 14 \<and> production_fits 723 14 \<and>
   production_fits 724 14"
  using pairs_fit_fits [OF pairs_fit_28 need_blocks_mem(29)] by simp

lemma fits_29:
  "production_fits 725 14 \<and> production_fits 726 14 \<and> production_fits 727 13 \<and>
   production_fits 728 15 \<and> production_fits 729 15 \<and> production_fits 730 15 \<and>
   production_fits 731 15 \<and> production_fits 732 15 \<and> production_fits 733 15 \<and>
   production_fits 734 15 \<and> production_fits 735 15 \<and> production_fits 736 15 \<and>
   production_fits 737 15 \<and> production_fits 738 15 \<and> production_fits 739 15 \<and>
   production_fits 740 15 \<and> production_fits 741 15 \<and> production_fits 742 15 \<and>
   production_fits 743 15 \<and> production_fits 744 15 \<and> production_fits 745 15 \<and>
   production_fits 746 15 \<and> production_fits 747 15 \<and> production_fits 748 15 \<and>
   production_fits 749 15"
  using pairs_fit_fits [OF pairs_fit_29 need_blocks_mem(30)] by simp

lemma fits_30:
  "production_fits 750 15 \<and> production_fits 751 15 \<and> production_fits 752 15 \<and>
   production_fits 753 15 \<and> production_fits 754 15 \<and> production_fits 755 15 \<and>
   production_fits 756 15 \<and> production_fits 757 15 \<and> production_fits 758 15 \<and>
   production_fits 759 15 \<and> production_fits 760 15 \<and> production_fits 761 15 \<and>
   production_fits 762 15 \<and> production_fits 763 15 \<and> production_fits 764 15 \<and>
   production_fits 765 15 \<and> production_fits 766 15 \<and> production_fits 767 15 \<and>
   production_fits 768 15 \<and> production_fits 769 15 \<and> production_fits 770 15 \<and>
   production_fits 771 15 \<and> production_fits 772 15 \<and> production_fits 773 15 \<and>
   production_fits 774 15"
  using pairs_fit_fits [OF pairs_fit_30 need_blocks_mem(31)] by simp

lemma fits_31:
  "production_fits 775 15 \<and> production_fits 776 15 \<and> production_fits 777 15 \<and>
   production_fits 778 15 \<and> production_fits 779 15 \<and> production_fits 780 15 \<and>
   production_fits 781 15 \<and> production_fits 782 15 \<and> production_fits 783 15 \<and>
   production_fits 784 15 \<and> production_fits 785 15 \<and> production_fits 786 15 \<and>
   production_fits 787 15 \<and> production_fits 788 15 \<and> production_fits 789 15 \<and>
   production_fits 790 15 \<and> production_fits 791 15 \<and> production_fits 792 15 \<and>
   production_fits 793 15 \<and> production_fits 794 15 \<and> production_fits 795 15 \<and>
   production_fits 796 15 \<and> production_fits 797 15 \<and> production_fits 798 15 \<and>
   production_fits 799 15"
  using pairs_fit_fits [OF pairs_fit_31 need_blocks_mem(32)] by simp

lemma fits_32:
  "production_fits 800 15 \<and> production_fits 801 15 \<and> production_fits 802 15 \<and>
   production_fits 803 15 \<and> production_fits 804 15 \<and> production_fits 805 15 \<and>
   production_fits 806 15 \<and> production_fits 807 15 \<and> production_fits 808 15 \<and>
   production_fits 809 15 \<and> production_fits 810 15 \<and> production_fits 811 15 \<and>
   production_fits 812 15 \<and> production_fits 813 15 \<and> production_fits 814 15 \<and>
   production_fits 815 15 \<and> production_fits 816 15 \<and> production_fits 817 15 \<and>
   production_fits 818 15 \<and> production_fits 819 15 \<and> production_fits 820 15 \<and>
   production_fits 821 16 \<and> production_fits 822 16 \<and> production_fits 823 16 \<and>
   production_fits 824 16"
  using pairs_fit_fits [OF pairs_fit_32 need_blocks_mem(33)] by simp

lemma fits_33:
  "production_fits 825 16 \<and> production_fits 826 16 \<and> production_fits 827 16 \<and>
   production_fits 828 16 \<and> production_fits 829 16 \<and> production_fits 830 16 \<and>
   production_fits 831 16 \<and> production_fits 832 16 \<and> production_fits 833 16 \<and>
   production_fits 834 16 \<and> production_fits 835 16 \<and> production_fits 836 16 \<and>
   production_fits 837 16 \<and> production_fits 838 16 \<and> production_fits 839 16 \<and>
   production_fits 840 16 \<and> production_fits 841 16 \<and> production_fits 842 16 \<and>
   production_fits 843 16 \<and> production_fits 844 16 \<and> production_fits 845 16 \<and>
   production_fits 846 16 \<and> production_fits 847 16 \<and> production_fits 848 16 \<and>
   production_fits 849 16"
  using pairs_fit_fits [OF pairs_fit_33 need_blocks_mem(34)] by simp

lemma fits_34:
  "production_fits 850 16 \<and> production_fits 851 16 \<and> production_fits 852 16 \<and>
   production_fits 853 16 \<and> production_fits 854 16 \<and> production_fits 855 16 \<and>
   production_fits 856 16 \<and> production_fits 857 16 \<and> production_fits 858 16 \<and>
   production_fits 859 16 \<and> production_fits 860 16 \<and> production_fits 861 16 \<and>
   production_fits 862 16 \<and> production_fits 863 16 \<and> production_fits 864 16 \<and>
   production_fits 865 16 \<and> production_fits 866 16 \<and> production_fits 867 16 \<and>
   production_fits 868 16 \<and> production_fits 869 16 \<and> production_fits 870 16 \<and>
   production_fits 871 16 \<and> production_fits 872 16 \<and> production_fits 873 16 \<and>
   production_fits 874 16"
  using pairs_fit_fits [OF pairs_fit_34 need_blocks_mem(35)] by simp

lemma fits_35:
  "production_fits 875 16 \<and> production_fits 876 16 \<and> production_fits 877 16 \<and>
   production_fits 878 16 \<and> production_fits 879 16 \<and> production_fits 880 16 \<and>
   production_fits 881 16 \<and> production_fits 882 16 \<and> production_fits 883 16 \<and>
   production_fits 884 16 \<and> production_fits 885 16 \<and> production_fits 886 16 \<and>
   production_fits 887 16 \<and> production_fits 888 16 \<and> production_fits 889 16 \<and>
   production_fits 890 16 \<and> production_fits 891 16 \<and> production_fits 892 16 \<and>
   production_fits 893 16 \<and> production_fits 894 16 \<and> production_fits 895 16 \<and>
   production_fits 896 16 \<and> production_fits 897 16 \<and> production_fits 898 16 \<and>
   production_fits 899 16"
  using pairs_fit_fits [OF pairs_fit_35 need_blocks_mem(36)] by simp

lemma fits_36:
  "production_fits 900 16 \<and> production_fits 901 16 \<and> production_fits 902 16 \<and>
   production_fits 903 16 \<and> production_fits 904 17 \<and> production_fits 905 17 \<and>
   production_fits 906 17 \<and> production_fits 907 17 \<and> production_fits 908 17 \<and>
   production_fits 909 17 \<and> production_fits 910 17 \<and> production_fits 911 17 \<and>
   production_fits 912 17 \<and> production_fits 913 17 \<and> production_fits 914 17 \<and>
   production_fits 915 17 \<and> production_fits 916 17 \<and> production_fits 917 17 \<and>
   production_fits 918 17 \<and> production_fits 919 17 \<and> production_fits 920 17 \<and>
   production_fits 921 17 \<and> production_fits 922 17 \<and> production_fits 923 17 \<and>
   production_fits 924 17"
  using pairs_fit_fits [OF pairs_fit_36 need_blocks_mem(37)] by simp

lemma fits_37:
  "production_fits 925 17 \<and> production_fits 926 17 \<and> production_fits 927 17 \<and>
   production_fits 928 17 \<and> production_fits 929 17 \<and> production_fits 930 17 \<and>
   production_fits 931 17 \<and> production_fits 932 17 \<and> production_fits 933 17 \<and>
   production_fits 934 17 \<and> production_fits 935 17 \<and> production_fits 936 17 \<and>
   production_fits 937 17 \<and> production_fits 938 17 \<and> production_fits 939 17 \<and>
   production_fits 940 17 \<and> production_fits 941 17 \<and> production_fits 942 17 \<and>
   production_fits 943 17 \<and> production_fits 944 17 \<and> production_fits 945 17 \<and>
   production_fits 946 17 \<and> production_fits 947 17 \<and> production_fits 948 17 \<and>
   production_fits 949 17"
  using pairs_fit_fits [OF pairs_fit_37 need_blocks_mem(38)] by simp

lemma fits_38:
  "production_fits 950 17 \<and> production_fits 951 17 \<and> production_fits 952 17 \<and>
   production_fits 953 17 \<and> production_fits 954 17 \<and> production_fits 955 17 \<and>
   production_fits 956 17 \<and> production_fits 957 17 \<and> production_fits 958 17 \<and>
   production_fits 959 17 \<and> production_fits 960 17 \<and> production_fits 961 17 \<and>
   production_fits 962 18 \<and> production_fits 963 18 \<and> production_fits 964 18 \<and>
   production_fits 965 18 \<and> production_fits 966 18 \<and> production_fits 967 18 \<and>
   production_fits 968 18 \<and> production_fits 969 18 \<and> production_fits 970 18 \<and>
   production_fits 971 18 \<and> production_fits 972 18 \<and> production_fits 973 18 \<and>
   production_fits 974 18"
  using pairs_fit_fits [OF pairs_fit_38 need_blocks_mem(39)] by simp

lemma fits_39:
  "production_fits 975 18 \<and> production_fits 976 18 \<and> production_fits 977 18 \<and>
   production_fits 978 18 \<and> production_fits 979 18 \<and> production_fits 980 18 \<and>
   production_fits 981 18 \<and> production_fits 982 18 \<and> production_fits 983 18 \<and>
   production_fits 984 18 \<and> production_fits 985 18 \<and> production_fits 986 18 \<and>
   production_fits 987 18 \<and> production_fits 988 18 \<and> production_fits 989 18 \<and>
   production_fits 990 19 \<and> production_fits 991 19 \<and> production_fits 992 19 \<and>
   production_fits 993 19 \<and> production_fits 994 19 \<and> production_fits 995 19 \<and>
   production_fits 996 19 \<and> production_fits 997 19 \<and> production_fits 998 20"
  using pairs_fit_fits [OF pairs_fit_39 need_blocks_mem(40)] by simp

lemmas fits_facts =
  fits_0 fits_1 fits_2 fits_3 fits_4 fits_5 fits_6 fits_7 fits_8 fits_9 fits_10 fits_11 fits_12
  fits_13 fits_14 fits_15 fits_16 fits_17 fits_18 fits_19 fits_20 fits_21 fits_22 fits_23 fits_24
  fits_25 fits_26 fits_27 fits_28 fits_29 fits_30 fits_31 fits_32 fits_33 fits_34 fits_35 fits_36
  fits_37 fits_38 fits_39

end
