(* ===== verification/Mojo_Action_Proofs.thy ===== *)
theory Mojo_Action_Proofs
  imports Mojo_Actions Mojo_Production_Proofs
begin

text \<open>
  Every group of \<open>ts_parse_actions\<close> has the number of actions that its header gives, and its actions are
  well formed; checked block by block.
\<close>

section \<open>Groups of actions\<close>

definition symbol_reducible :: "nat \<Rightarrow> bool" where
  "symbol_reducible s \<longleftrightarrow> TOKEN_COUNT \<le> s \<and> s < SYMBOL_COUNT"

fun action_ok :: "TSParseAction \<Rightarrow> bool" where
  "action_ok (Shift s extra repetition) \<longleftrightarrow> s < STATE_COUNT"
| "action_ok (Reduce s c prec p) \<longleftrightarrow> symbol_reducible s \<and> production_fits p c"
| "action_ok Accept \<longleftrightarrow> True"
| "action_ok Recover \<longleftrightarrow> True"

fun entry_action_ok :: "TSParseActionEntry \<Rightarrow> bool" where
  "entry_action_ok (Action a) \<longleftrightarrow> action_ok a"
| "entry_action_ok (Entry c r) \<longleftrightarrow> False"

text \<open>Only the last action of a group may be a shift.\<close>

fun entry_reduces :: "TSParseActionEntry \<Rightarrow> bool" where
  "entry_reduces (Action (Reduce s c prec p)) \<longleftrightarrow> True"
| "entry_reduces e \<longleftrightarrow> False"

fun shift_last :: "TSParseActionEntry list \<Rightarrow> bool" where
  "shift_last (e # f # es) \<longleftrightarrow> entry_reduces e \<and> shift_last (f # es)"
| "shift_last es \<longleftrightarrow> True"

fun group_ok :: "TSParseActionEntry list \<Rightarrow> bool" where
  "group_ok (Entry count reusable # es) \<longleftrightarrow> length es = count \<and> list_all entry_action_ok es \<and> shift_last es"
| "group_ok es \<longleftrightarrow> False"

definition row_ok :: "nat \<times> TSParseActionEntry list \<Rightarrow> bool" where
  "row_ok r \<longleftrightarrow> group_ok (snd r)"

section \<open>Checking the rows\<close>

lemma entry_reduces_REDUCE: "entry_reduces (REDUCE s c prec p)"
  by (simp add: REDUCE_def)

lemma row_ok_ENTRY:
  "row_ok (i, ENTRY c r # es) \<longleftrightarrow> length es = c \<and> list_all entry_action_ok es \<and> shift_last es"
  by (simp add: row_ok_def ENTRY_def)

lemma entry_action_ok_simps:
  "entry_action_ok (SHIFT s) \<longleftrightarrow> s < 12758"
  "entry_action_ok (SHIFT_REPEAT s) \<longleftrightarrow> s < 12758"
  "entry_action_ok SHIFT_EXTRA"
  "entry_action_ok (REDUCE s c prec p) \<longleftrightarrow> symbol_reducible s \<and> production_fits p c"
  "entry_action_ok RECOVER"
  "entry_action_ok ACCEPT_INPUT"
  by (simp_all add: SHIFT_def SHIFT_REPEAT_def SHIFT_EXTRA_def REDUCE_def RECOVER_def
      ACCEPT_INPUT_def STATE_COUNT_def)

lemma reducible_symbols:
  "symbol_reducible aux_sym__collection_elements_repeat1"
  "symbol_reducible aux_sym__comprehension_clauses_repeat1"
  "symbol_reducible aux_sym__function_effects"
  "symbol_reducible aux_sym__import_list_repeat1"
  "symbol_reducible aux_sym__match_block_repeat1"
  "symbol_reducible aux_sym__parameters_repeat1"
  "symbol_reducible aux_sym__patterns_repeat1"
  "symbol_reducible aux_sym__simple_statements_repeat1"
  "symbol_reducible aux_sym_argument_list_repeat1"
  "symbol_reducible aux_sym_assert_statement_repeat1"
  "symbol_reducible aux_sym_called_type_repeat1"
  "symbol_reducible aux_sym_capture_list_repeat1"
  "symbol_reducible aux_sym_case_clause_repeat1"
  "symbol_reducible aux_sym_comparison_operator_repeat1"
  "symbol_reducible aux_sym_concatenated_string_repeat1"
  "symbol_reducible aux_sym_decorated_definition_repeat1"
  "symbol_reducible aux_sym_dict_pattern_repeat1"
  "symbol_reducible aux_sym_dictionary_repeat1"
  "symbol_reducible aux_sym_dotted_name_repeat1"
  "symbol_reducible aux_sym_for_in_clause_repeat1"
  "symbol_reducible aux_sym_format_specifier_repeat1"
  "symbol_reducible aux_sym_function_definition_repeat1"
  "symbol_reducible aux_sym_function_type_repeat1"
  "symbol_reducible aux_sym_global_statement_repeat1"
  "symbol_reducible aux_sym_if_statement_repeat1"
  "symbol_reducible aux_sym_import_prefix_repeat1"
  "symbol_reducible aux_sym_intersection_type_repeat1"
  "symbol_reducible aux_sym_match_statement_repeat1"
  "symbol_reducible aux_sym_mlir_fragment_repeat1"
  "symbol_reducible aux_sym_module_repeat1"
  "symbol_reducible aux_sym_parameter_list_repeat1"
  "symbol_reducible aux_sym_print_statement_repeat1"
  "symbol_reducible aux_sym_result_convention_repeat1"
  "symbol_reducible aux_sym_string_content_repeat1"
  "symbol_reducible aux_sym_string_repeat1"
  "symbol_reducible aux_sym_struct_literal_repeat1"
  "symbol_reducible aux_sym_subscript_repeat1"
  "symbol_reducible aux_sym_superclass_list_repeat1"
  "symbol_reducible aux_sym_try_statement_repeat1"
  "symbol_reducible aux_sym_try_statement_repeat2"
  "symbol_reducible aux_sym_type_parameter_repeat1"
  "symbol_reducible aux_sym_unified_clause_repeat1"
  "symbol_reducible aux_sym_union_pattern_repeat1"
  "symbol_reducible aux_sym_with_clause_repeat1"
  "symbol_reducible sym__as_pattern"
  "symbol_reducible sym__collection_elements"
  "symbol_reducible sym__comprehension_clauses"
  "symbol_reducible sym__expression_within_for_in_clause"
  "symbol_reducible sym__f_expression"
  "symbol_reducible sym__import_list"
  "symbol_reducible sym__intersection_operand"
  "symbol_reducible sym__is_not"
  "symbol_reducible sym__key_value_pattern"
  "symbol_reducible sym__list_pattern"
  "symbol_reducible sym__match_block"
  "symbol_reducible sym__named_expression_lhs"
  "symbol_reducible sym__not_in"
  "symbol_reducible sym__parameters"
  "symbol_reducible sym__patterns"
  "symbol_reducible sym__raises_type"
  "symbol_reducible sym__ref_convention"
  "symbol_reducible sym__right_hand_side"
  "symbol_reducible sym__simple_pattern"
  "symbol_reducible sym__simple_statements"
  "symbol_reducible sym__tuple_pattern"
  "symbol_reducible sym__type_parameter_default"
  "symbol_reducible sym_abi_specifier"
  "symbol_reducible sym_aliased_import"
  "symbol_reducible sym_argument_convention"
  "symbol_reducible sym_argument_list"
  "symbol_reducible sym_as_pattern"
  "symbol_reducible sym_assert_statement"
  "symbol_reducible sym_assignment"
  "symbol_reducible sym_attribute"
  "symbol_reducible sym_augmented_assignment"
  "symbol_reducible sym_await"
  "symbol_reducible sym_binary_operator"
  "symbol_reducible sym_block"
  "symbol_reducible sym_boolean_operator"
  "symbol_reducible sym_break_statement"
  "symbol_reducible sym_call"
  "symbol_reducible sym_called_type"
  "symbol_reducible sym_capture_list"
  "symbol_reducible sym_case_clause"
  "symbol_reducible sym_case_pattern"
  "symbol_reducible sym_chevron"
  "symbol_reducible sym_class_definition"
  "symbol_reducible sym_class_pattern"
  "symbol_reducible sym_comparison_operator"
  "symbol_reducible sym_complex_pattern"
  "symbol_reducible sym_comptime_assert_statement"
  "symbol_reducible sym_comptime_expression"
  "symbol_reducible sym_comptime_statement"
  "symbol_reducible sym_concatenated_string"
  "symbol_reducible sym_conditional_expression"
  "symbol_reducible sym_constrained_type"
  "symbol_reducible sym_continue_statement"
  "symbol_reducible sym_decorated_definition"
  "symbol_reducible sym_decorator"
  "symbol_reducible sym_default_parameter"
  "symbol_reducible sym_delete_statement"
  "symbol_reducible sym_dict_pattern"
  "symbol_reducible sym_dictionary"
  "symbol_reducible sym_dictionary_comprehension"
  "symbol_reducible sym_dictionary_splat"
  "symbol_reducible sym_dictionary_splat_pattern"
  "symbol_reducible sym_dotted_name"
  "symbol_reducible sym_elif_clause"
  "symbol_reducible sym_else_clause"
  "symbol_reducible sym_except_clause"
  "symbol_reducible sym_except_group_clause"
  "symbol_reducible sym_exec_statement"
  "symbol_reducible sym_expression"
  "symbol_reducible sym_expression_list"
  "symbol_reducible sym_expression_statement"
  "symbol_reducible sym_extension_definition"
  "symbol_reducible sym_finally_clause"
  "symbol_reducible sym_for_in_clause"
  "symbol_reducible sym_for_statement"
  "symbol_reducible sym_format_specifier"
  "symbol_reducible sym_function_definition"
  "symbol_reducible sym_function_type"
  "symbol_reducible sym_future_import_statement"
  "symbol_reducible sym_generator_expression"
  "symbol_reducible sym_generic_type"
  "symbol_reducible sym_global_statement"
  "symbol_reducible sym_if_clause"
  "symbol_reducible sym_if_statement"
  "symbol_reducible sym_import_from_statement"
  "symbol_reducible sym_import_prefix"
  "symbol_reducible sym_import_statement"
  "symbol_reducible sym_infer_separator"
  "symbol_reducible sym_interpolation"
  "symbol_reducible sym_intersection_type"
  "symbol_reducible sym_keyword_argument"
  "symbol_reducible sym_keyword_pattern"
  "symbol_reducible sym_keyword_separator"
  "symbol_reducible sym_lambda"
  "symbol_reducible sym_lambda_parameters"
  "symbol_reducible sym_lambda_within_for_in_clause"
  "symbol_reducible sym_list"
  "symbol_reducible sym_list_comprehension"
  "symbol_reducible sym_list_pattern"
  "symbol_reducible sym_list_splat"
  "symbol_reducible sym_list_splat_pattern"
  "symbol_reducible sym_match_statement"
  "symbol_reducible sym_member_type"
  "symbol_reducible sym_mlir_fragment"
  "symbol_reducible sym_mlir_region"
  "symbol_reducible sym_mlir_type"
  "symbol_reducible sym_module"
  "symbol_reducible sym_named_expression"
  "symbol_reducible sym_nonlocal_statement"
  "symbol_reducible sym_not_operator"
  "symbol_reducible sym_pair"
  "symbol_reducible sym_parameter"
  "symbol_reducible sym_parameter_list"
  "symbol_reducible sym_parameterized_alias_statement"
  "symbol_reducible sym_parameters"
  "symbol_reducible sym_parenthesized_expression"
  "symbol_reducible sym_parenthesized_list_splat"
  "symbol_reducible sym_pass_statement"
  "symbol_reducible sym_pattern"
  "symbol_reducible sym_pattern_list"
  "symbol_reducible sym_positional_separator"
  "symbol_reducible sym_primary_expression"
  "symbol_reducible sym_print_statement"
  "symbol_reducible sym_raise_statement"
  "symbol_reducible sym_relative_import"
  "symbol_reducible sym_result_convention"
  "symbol_reducible sym_return_statement"
  "symbol_reducible sym_self_parameter"
  "symbol_reducible sym_set"
  "symbol_reducible sym_set_comprehension"
  "symbol_reducible sym_slice"
  "symbol_reducible sym_slice_keyword_argument"
  "symbol_reducible sym_splat_pattern"
  "symbol_reducible sym_splat_type"
  "symbol_reducible sym_string"
  "symbol_reducible sym_string_content"
  "symbol_reducible sym_struct_literal"
  "symbol_reducible sym_struct_literal_field"
  "symbol_reducible sym_subscript"
  "symbol_reducible sym_superclass_list"
  "symbol_reducible sym_trait_definition"
  "symbol_reducible sym_trait_list"
  "symbol_reducible sym_transfer_expression"
  "symbol_reducible sym_try_statement"
  "symbol_reducible sym_tuple"
  "symbol_reducible sym_tuple_expression"
  "symbol_reducible sym_tuple_pattern"
  "symbol_reducible sym_type"
  "symbol_reducible sym_type_alias_statement"
  "symbol_reducible sym_type_parameter"
  "symbol_reducible sym_typed_default_parameter"
  "symbol_reducible sym_typed_parameter"
  "symbol_reducible sym_unary_operator"
  "symbol_reducible sym_unified_clause"
  "symbol_reducible sym_union_pattern"
  "symbol_reducible sym_union_type"
  "symbol_reducible sym_where_clause"
  "symbol_reducible sym_while_statement"
  "symbol_reducible sym_wildcard_import"
  "symbol_reducible sym_wildcard_origin"
  "symbol_reducible sym_with_clause"
  "symbol_reducible sym_with_item"
  "symbol_reducible sym_with_statement"
  "symbol_reducible sym_yield"
  by (simp_all add: symbol_reducible_def TOKEN_COUNT_def SYMBOL_COUNT_def grammar_symbol_defs)

text \<open>The facts about the symbols and the productions are in the simpset for the checks below only.\<close>

lemmas row_check = row_ok_ENTRY entry_action_ok_simps entry_reduces_REDUCE reducible_symbols fits_facts

declare row_check [simp] One_nat_def [simp del]

section \<open>The blocks of the table\<close>

lemma parse_actions_0_ok: "list_all row_ok parse_actions_0" "runs_end 0 parse_actions_0 = Some 357"
  unfolding parse_actions_0_def by (simp_all add: runs_end.simps(2))

lemma parse_actions_1_ok: "list_all row_ok parse_actions_1" "runs_end 357 parse_actions_1 = Some 657"
  unfolding parse_actions_1_def by simp_all

lemma parse_actions_2_ok: "list_all row_ok parse_actions_2" "runs_end 657 parse_actions_2 = Some 957"
  unfolding parse_actions_2_def by simp_all

lemma parse_actions_3_ok: "list_all row_ok parse_actions_3" "runs_end 957 parse_actions_3 = Some 1257"
  unfolding parse_actions_3_def by simp_all

lemma parse_actions_4_ok: "list_all row_ok parse_actions_4" "runs_end 1257 parse_actions_4 = Some 1564"
  unfolding parse_actions_4_def by simp_all

lemma parse_actions_5_ok: "list_all row_ok parse_actions_5" "runs_end 1564 parse_actions_5 = Some 1870"
  unfolding parse_actions_5_def by simp_all

lemma parse_actions_6_ok: "list_all row_ok parse_actions_6" "runs_end 1870 parse_actions_6 = Some 2170"
  unfolding parse_actions_6_def by simp_all

lemma parse_actions_7_ok: "list_all row_ok parse_actions_7" "runs_end 2170 parse_actions_7 = Some 2470"
  unfolding parse_actions_7_def by simp_all

lemma parse_actions_8_ok: "list_all row_ok parse_actions_8" "runs_end 2470 parse_actions_8 = Some 2770"
  unfolding parse_actions_8_def by simp_all

lemma parse_actions_9_ok: "list_all row_ok parse_actions_9" "runs_end 2770 parse_actions_9 = Some 3070"
  unfolding parse_actions_9_def by simp_all

lemma parse_actions_10_ok: "list_all row_ok parse_actions_10" "runs_end 3070 parse_actions_10 = Some 3370"
  unfolding parse_actions_10_def by simp_all

lemma parse_actions_11_ok: "list_all row_ok parse_actions_11" "runs_end 3370 parse_actions_11 = Some 3670"
  unfolding parse_actions_11_def by simp_all

lemma parse_actions_12_ok: "list_all row_ok parse_actions_12" "runs_end 3670 parse_actions_12 = Some 3970"
  unfolding parse_actions_12_def by simp_all

lemma parse_actions_13_ok: "list_all row_ok parse_actions_13" "runs_end 3970 parse_actions_13 = Some 4276"
  unfolding parse_actions_13_def by simp_all

lemma parse_actions_14_ok: "list_all row_ok parse_actions_14" "runs_end 4276 parse_actions_14 = Some 4577"
  unfolding parse_actions_14_def by simp_all

lemma parse_actions_15_ok: "list_all row_ok parse_actions_15" "runs_end 4577 parse_actions_15 = Some 4877"
  unfolding parse_actions_15_def by simp_all

lemma parse_actions_16_ok: "list_all row_ok parse_actions_16" "runs_end 4877 parse_actions_16 = Some 5177"
  unfolding parse_actions_16_def by simp_all

lemma parse_actions_17_ok: "list_all row_ok parse_actions_17" "runs_end 5177 parse_actions_17 = Some 5477"
  unfolding parse_actions_17_def by simp_all

lemma parse_actions_18_ok: "list_all row_ok parse_actions_18" "runs_end 5477 parse_actions_18 = Some 5785"
  unfolding parse_actions_18_def by simp_all

lemma parse_actions_19_ok: "list_all row_ok parse_actions_19" "runs_end 5785 parse_actions_19 = Some 6091"
  unfolding parse_actions_19_def by simp_all

lemma parse_actions_20_ok: "list_all row_ok parse_actions_20" "runs_end 6091 parse_actions_20 = Some 6391"
  unfolding parse_actions_20_def by simp_all

lemma parse_actions_21_ok: "list_all row_ok parse_actions_21" "runs_end 6391 parse_actions_21 = Some 6691"
  unfolding parse_actions_21_def by simp_all

lemma parse_actions_22_ok: "list_all row_ok parse_actions_22" "runs_end 6691 parse_actions_22 = Some 6991"
  unfolding parse_actions_22_def by simp_all

lemma parse_actions_23_ok: "list_all row_ok parse_actions_23" "runs_end 6991 parse_actions_23 = Some 7291"
  unfolding parse_actions_23_def by simp_all

lemma parse_actions_24_ok: "list_all row_ok parse_actions_24" "runs_end 7291 parse_actions_24 = Some 7591"
  unfolding parse_actions_24_def by simp_all

lemma parse_actions_25_ok: "list_all row_ok parse_actions_25" "runs_end 7591 parse_actions_25 = Some 7891"
  unfolding parse_actions_25_def by simp_all

lemma parse_actions_26_ok: "list_all row_ok parse_actions_26" "runs_end 7891 parse_actions_26 = Some 8191"
  unfolding parse_actions_26_def by simp_all

lemma parse_actions_27_ok: "list_all row_ok parse_actions_27" "runs_end 8191 parse_actions_27 = Some 8491"
  unfolding parse_actions_27_def by simp_all

lemma parse_actions_28_ok: "list_all row_ok parse_actions_28" "runs_end 8491 parse_actions_28 = Some 8791"
  unfolding parse_actions_28_def by simp_all

lemma parse_actions_29_ok: "list_all row_ok parse_actions_29" "runs_end 8791 parse_actions_29 = Some 9091"
  unfolding parse_actions_29_def by simp_all

lemma parse_actions_30_ok: "list_all row_ok parse_actions_30" "runs_end 9091 parse_actions_30 = Some 9402"
  unfolding parse_actions_30_def by simp_all

lemma parse_actions_31_ok: "list_all row_ok parse_actions_31" "runs_end 9402 parse_actions_31 = Some 9707"
  unfolding parse_actions_31_def by simp_all

lemma parse_actions_32_ok: "list_all row_ok parse_actions_32" "runs_end 9707 parse_actions_32 = Some 10025"
  unfolding parse_actions_32_def by simp_all

lemma parse_actions_33_ok: "list_all row_ok parse_actions_33" "runs_end 10025 parse_actions_33 = Some 10368"
  unfolding parse_actions_33_def by simp_all

lemma parse_actions_34_ok: "list_all row_ok parse_actions_34" "runs_end 10368 parse_actions_34 = Some 10690"
  unfolding parse_actions_34_def by simp_all

lemma parse_actions_35_ok: "list_all row_ok parse_actions_35" "runs_end 10690 parse_actions_35 = Some 11000"
  unfolding parse_actions_35_def by simp_all

lemma parse_actions_36_ok: "list_all row_ok parse_actions_36" "runs_end 11000 parse_actions_36 = Some 11300"
  unfolding parse_actions_36_def by simp_all

lemma parse_actions_37_ok: "list_all row_ok parse_actions_37" "runs_end 11300 parse_actions_37 = Some 11600"
  unfolding parse_actions_37_def by simp_all

lemma parse_actions_38_ok: "list_all row_ok parse_actions_38" "runs_end 11600 parse_actions_38 = Some 11904"
  unfolding parse_actions_38_def by simp_all

lemma parse_actions_39_ok: "list_all row_ok parse_actions_39" "runs_end 11904 parse_actions_39 = Some 12218"
  unfolding parse_actions_39_def by simp_all

lemma parse_actions_40_ok: "list_all row_ok parse_actions_40" "runs_end 12218 parse_actions_40 = Some 12519"
  unfolding parse_actions_40_def by simp_all

lemma parse_actions_41_ok: "list_all row_ok parse_actions_41" "runs_end 12519 parse_actions_41 = Some 12820"
  unfolding parse_actions_41_def by simp_all

lemma parse_actions_42_ok: "list_all row_ok parse_actions_42" "runs_end 12820 parse_actions_42 = Some 13130"
  unfolding parse_actions_42_def by simp_all

lemma parse_actions_43_ok: "list_all row_ok parse_actions_43" "runs_end 13130 parse_actions_43 = Some 13442"
  unfolding parse_actions_43_def by simp_all

lemma parse_actions_44_ok: "list_all row_ok parse_actions_44" "runs_end 13442 parse_actions_44 = Some 13749"
  unfolding parse_actions_44_def by simp_all

lemma parse_actions_45_ok: "list_all row_ok parse_actions_45" "runs_end 13749 parse_actions_45 = Some 14062"
  unfolding parse_actions_45_def by simp_all

lemma parse_actions_46_ok: "list_all row_ok parse_actions_46" "runs_end 14062 parse_actions_46 = Some 14364"
  unfolding parse_actions_46_def by simp_all

lemma parse_actions_47_ok: "list_all row_ok parse_actions_47" "runs_end 14364 parse_actions_47 = Some 14667"
  unfolding parse_actions_47_def by simp_all

lemma parse_actions_48_ok: "list_all row_ok parse_actions_48" "runs_end 14667 parse_actions_48 = Some 14970"
  unfolding parse_actions_48_def by simp_all

lemma parse_actions_49_ok: "list_all row_ok parse_actions_49" "runs_end 14970 parse_actions_49 = Some 15272"
  unfolding parse_actions_49_def by simp_all

lemma parse_actions_50_ok: "list_all row_ok parse_actions_50" "runs_end 15272 parse_actions_50 = Some 15580"
  unfolding parse_actions_50_def by simp_all

lemma parse_actions_51_ok: "list_all row_ok parse_actions_51" "runs_end 15580 parse_actions_51 = Some 15883"
  unfolding parse_actions_51_def by simp_all

lemma parse_actions_52_ok: "list_all row_ok parse_actions_52" "runs_end 15883 parse_actions_52 = Some 16186"
  unfolding parse_actions_52_def by simp_all

lemma parse_actions_53_ok: "list_all row_ok parse_actions_53" "runs_end 16186 parse_actions_53 = Some 16488"
  unfolding parse_actions_53_def by simp_all

lemma parse_actions_54_ok: "list_all row_ok parse_actions_54" "runs_end 16488 parse_actions_54 = Some 16790"
  unfolding parse_actions_54_def by simp_all

lemma parse_actions_55_ok: "list_all row_ok parse_actions_55" "runs_end 16790 parse_actions_55 = Some 17102"
  unfolding parse_actions_55_def by simp_all

lemma parse_actions_56_ok: "list_all row_ok parse_actions_56" "runs_end 17102 parse_actions_56 = Some 17409"
  unfolding parse_actions_56_def by simp_all

lemma parse_actions_57_ok: "list_all row_ok parse_actions_57" "runs_end 17409 parse_actions_57 = Some 17715"
  unfolding parse_actions_57_def by simp_all

lemma parse_actions_58_ok: "list_all row_ok parse_actions_58" "runs_end 17715 parse_actions_58 = Some 18019"
  unfolding parse_actions_58_def by simp_all

lemma parse_actions_59_ok: "list_all row_ok parse_actions_59" "runs_end 18019 parse_actions_59 = Some 18320"
  unfolding parse_actions_59_def by simp_all

lemma parse_actions_60_ok: "list_all row_ok parse_actions_60" "runs_end 18320 parse_actions_60 = Some 18620"
  unfolding parse_actions_60_def by simp_all

lemma parse_actions_61_ok: "list_all row_ok parse_actions_61" "runs_end 18620 parse_actions_61 = Some 18642"
  unfolding parse_actions_61_def by simp_all

declare row_check [simp del] One_nat_def [simp]

lemmas parse_actions_ok =
  parse_actions_0_ok parse_actions_1_ok parse_actions_2_ok parse_actions_3_ok parse_actions_4_ok
  parse_actions_5_ok parse_actions_6_ok parse_actions_7_ok parse_actions_8_ok parse_actions_9_ok
  parse_actions_10_ok parse_actions_11_ok parse_actions_12_ok parse_actions_13_ok
  parse_actions_14_ok parse_actions_15_ok parse_actions_16_ok parse_actions_17_ok
  parse_actions_18_ok parse_actions_19_ok parse_actions_20_ok parse_actions_21_ok
  parse_actions_22_ok parse_actions_23_ok parse_actions_24_ok parse_actions_25_ok
  parse_actions_26_ok parse_actions_27_ok parse_actions_28_ok parse_actions_29_ok
  parse_actions_30_ok parse_actions_31_ok parse_actions_32_ok parse_actions_33_ok
  parse_actions_34_ok parse_actions_35_ok parse_actions_36_ok parse_actions_37_ok
  parse_actions_38_ok parse_actions_39_ok parse_actions_40_ok parse_actions_41_ok
  parse_actions_42_ok parse_actions_43_ok parse_actions_44_ok parse_actions_45_ok
  parse_actions_46_ok parse_actions_47_ok parse_actions_48_ok parse_actions_49_ok
  parse_actions_50_ok parse_actions_51_ok parse_actions_52_ok parse_actions_53_ok
  parse_actions_54_ok parse_actions_55_ok parse_actions_56_ok parse_actions_57_ok
  parse_actions_58_ok parse_actions_59_ok parse_actions_60_ok parse_actions_61_ok

lemma parse_action_rows_end: "runs_end 0 parse_action_rows = Some 18642"
  unfolding parse_action_rows_def by (simp add: parse_actions_ok)

lemma parse_action_rows_ok: "list_all row_ok parse_action_rows"
  unfolding parse_action_rows_def by (simp add: parse_actions_ok)

lemma length_ts_parse_actions: "length ts_parse_actions = 18642"
  unfolding ts_parse_actions_def by (rule designated_runs_concat(2) [OF parse_action_rows_end])

end
