(* ===== verification/Mojo_Table_Properties.thy ===== *)
theory Mojo_Table_Properties
  imports Mojo_Action_Proofs
begin

text \<open>
  The properties of the parser's tables: the groups of actions cover \<open>ts_parse_actions\<close> and stay
  inside the other tables, a reduction leaves a child for every field and alias of its production,
  and the fields of a production are a sorted slice of \<open>ts_field_map_entries\<close>.
\<close>

section \<open>Groups\<close>

lemma entry_action_those:
  "list_all entry_action_ok es \<Longrightarrow>
   \<exists>acts. those (map entry_action es) = Some acts \<and> es = map Action acts \<and> list_all action_ok acts"
proof (induction es)
  case (Cons e es)
  then obtain acts where "those (map entry_action es) = Some acts" "es = map Action acts"
    "list_all action_ok acts" by auto
  with Cons.prems show ?case by (cases e) (auto intro!: exI [of _ "_ # acts"])
qed simp

lemma shift_last_butlast:
  "shift_last (map Action acts) \<Longrightarrow> a \<in> set (butlast acts) \<Longrightarrow> \<exists>s c prec p. a = Reduce s c prec p"
proof (induction acts rule: induct_list012)
  case (3 x y zs)
  then show ?case by (cases x) (auto split: if_splits)
qed simp_all

text \<open>The actions of the group in a row of the table.\<close>

lemma row_actions:
  assumes "(h, es) \<in> set parse_action_rows"
  obtains count reusable acts where "es = Entry count reusable # map Action acts" "length acts = count"
    "actions_at h = Some acts" "list_all action_ok acts" "h + length es \<le> length ts_parse_actions"
    "take (length es) (drop h ts_parse_actions) = es" "shift_last (map Action acts)"
proof -
  from parse_action_rows_ok assms have "group_ok es" by (force simp: list_all_iff row_ok_def)
  then obtain count reusable fs where es: "es = Entry count reusable # fs" "length fs = count"
    "list_all entry_action_ok fs" "shift_last fs" by (cases es rule: group_ok.cases) auto
  from entry_action_those [OF es(3)] obtain acts where acts:
    "those (map entry_action fs) = Some acts" "fs = map Action acts" "list_all action_ok acts" by blast
  have len: "h + length es \<le> length ts_parse_actions"
    and slice: "take (length es) (drop h ts_parse_actions) = es"
    using designated_runs_slice [OF parse_action_rows_end assms] length_ts_parse_actions
    by (simp_all add: ts_parse_actions_def)
  have "ts_parse_actions ! h # take count (drop (Suc h) ts_parse_actions) = es"
    using slice len es(1,2) by (simp add: Cons_nth_drop_Suc [symmetric])
  with es acts(1) have "actions_at h = Some acts" by (auto simp: actions_at_def)
  then show thesis using that [of count reusable acts] es acts len slice by simp
qed

lemma index_row:
  assumes "i < length ts_parse_actions"
  obtains h es where "(h, es) \<in> set parse_action_rows" "h \<le> i" "i < h + length es"
  using runs_end_cover [OF parse_action_rows_end, of i] assms length_ts_parse_actions by auto

lemma row_element:
  "take (length es) (drop h xs) = es \<Longrightarrow> h + length es \<le> length xs \<Longrightarrow> h \<le> i \<Longrightarrow> i < h + length es \<Longrightarrow>
   xs ! i = es ! (i - h)"
  by (metis add_diff_inverse_nat add_leD1 less_diff_conv2 linorder_not_less nth_drop nth_take add.commute)

text \<open>A header lies at the index of its row: only the first element of a row is one.\<close>

lemma header_action_row:
  assumes "i < length ts_parse_actions" "actions_at i = Some acts"
  obtains count reusable where "(i, Entry count reusable # map Action acts) \<in> set parse_action_rows"
    "list_all action_ok acts"
proof -
  from index_row [OF assms(1)] obtain h es
    where row: "(h, es) \<in> set parse_action_rows" "h \<le> i" "i < h + length es" by blast
  from row_actions [OF row(1)] obtain count reusable acts'
    where e: "es = Entry count reusable # map Action acts'" "length acts' = count" "actions_at h = Some acts'"
      "list_all action_ok acts'" "h + length es \<le> length ts_parse_actions"
      "take (length es) (drop h ts_parse_actions) = es" by blast
  have "ts_parse_actions ! i = es ! (i - h)" using row_element [OF e(6,5) row(2,3)] .
  moreover have "i = h"
  proof (rule ccontr)
    assume "i \<noteq> h"
    then obtain k where k: "i - h = Suc k" using row(2) by (metis diff_is_0_eq le_antisym not0_implies_Suc)
    then have "k < length acts'" using row(2,3) e(1) by auto
    with k calculation e(1) have "ts_parse_actions ! i = Action (acts' ! k)" by simp
    with assms(2) show False by (simp add: actions_at_def)
  qed
  ultimately have "acts = acts'" "i = h" using assms(2) e(3) by simp_all
  with that [of count reusable] row(1) e(1,4) show thesis by simp
qed

lemma header_row:
  "i < length ts_parse_actions \<Longrightarrow> actions_at i = Some acts \<Longrightarrow> list_all action_ok acts"
  by (rule header_action_row)

lemma fields_sorted_sorted: "fields_sorted es \<Longrightarrow> sorted (map field_id es)"
  by (induction es rule: fields_sorted.induct) (auto dest: order_trans)

text \<open>A reduction leaves room for its production: in every group of the table, a reduction of \<open>c\<close>
  children by the production \<open>p\<close> has a child for each entry of the field map of \<open>p\<close> and for each
  position at which \<open>p\<close> gives a child an alias, so that no field or alias refers to a child that the
  node does not have.\<close>

lemma reductions_fit_productions:
  assumes "i < length ts_parse_actions" "actions_at i = Some acts" "Reduce s c prec p \<in> set acts"
  shows "(\<forall>e\<in>set (production_fields p). child_index e < c) \<and>
    (\<forall>k<MAX_ALIAS_SEQUENCE_LENGTH. ts_alias_sequences ! p ! k \<noteq> 0 \<longrightarrow> k < c)"
proof -
  from header_row [OF assms(1,2)] assms(3) have "production_fits p c" by (auto simp: list_all_iff)
  then show ?thesis by (simp add: production_fits_def fields_fit_def aliases_fit_def list_all_iff)
qed

text \<open>The fields of every production are a slice inside \<open>ts_field_map_entries\<close>, they are fields of
  the grammar, and they are sorted by field, so that a search for a field may stop at the first
  larger one.\<close>

lemma production_fields_sorted:
  assumes "p < PRODUCTION_ID_COUNT"
  shows "slice_index (ts_field_map_slices ! p) + slice_length (ts_field_map_slices ! p) \<le>
      length ts_field_map_entries \<and>
    length (production_fields p) = slice_length (ts_field_map_slices ! p) \<and>
    sorted (map field_id (production_fields p)) \<and>
    (\<forall>e\<in>set (production_fields p). 1 \<le> field_id e \<and> field_id e \<le> FIELD_COUNT)"
  using slice_row_need [OF assms]
proof
  assume "ts_field_map_slices ! p = map_slice 0 0"
  then show ?thesis by (simp add: production_fields_def map_slice_def)
next
  assume "\<exists>i n c es. (p, i, n, c) \<in> set slice_needs \<and> ts_field_map_slices ! p = map_slice i n \<and>
    (i, es) \<in> set field_map_entry_rows \<and> run_ok i n c es"
  then obtain i n c es where e: "ts_field_map_slices ! p = map_slice i n"
    "(i, es) \<in> set field_map_entry_rows" "run_ok i n c es" by blast
  note slice = designated_runs_slice [OF field_map_entry_rows_end e(2)]
    designated_runs_concat(2) [OF field_map_entry_rows_end]
  have len: "i + n \<le> length ts_field_map_entries" and fields: "production_fields p = es"
    using slice e(1,3)
    by (simp_all add: production_fields_def map_slice_def run_ok_def ts_field_map_entries_def)
  have "sorted (map field_id es)" using e(3) fields_sorted_sorted by (simp add: run_ok_def)
  with len fields e(1,3) show ?thesis
    by (simp add: map_slice_def run_ok_def list_all_iff entry_ok_def)
qed

section \<open>Properties\<close>

text \<open>C38: The table \<open>ts_parse_actions\<close> is a sequence of groups without gaps. Every index lies in exactly
  the group whose header is the last one at or before it: the header at \<open>h\<close> announces as many actions
  as follow it, and the element at \<open>i\<close> is the header itself or one of these actions. Each action stays
  inside the tables it refers to: a shift names a parse state; a reduction of \<open>c\<close> children by the
  production \<open>p\<close> names a nonterminal and has a child for each entry of the field map of \<open>p\<close> and for each
  position at which \<open>p\<close> gives a child an alias. All actions of a group but the last are reductions, so
  that its shift, if there is one, is the last action.\<close>

theorem parse_actions_wellformed:
  assumes "i < length ts_parse_actions"
  shows "\<exists>h count reusable acts. h \<le> i \<and> i \<le> h + count \<and> h + count < length ts_parse_actions \<and>
    ts_parse_actions ! h = Entry count reusable \<and> actions_at h = Some acts \<and> length acts = count \<and>
    (i = h \<or> ts_parse_actions ! i = Action (acts ! (i - h - 1))) \<and>
    (\<forall>s extra repetition. Shift s extra repetition \<in> set acts \<longrightarrow> s < STATE_COUNT) \<and>
    (\<forall>s c prec p. Reduce s c prec p \<in> set acts \<longrightarrow>
       TOKEN_COUNT \<le> s \<and> s < SYMBOL_COUNT \<and> p < PRODUCTION_ID_COUNT \<and>
       (\<forall>e\<in>set (production_fields p). child_index e < c) \<and>
       (\<forall>k<MAX_ALIAS_SEQUENCE_LENGTH. ts_alias_sequences ! p ! k \<noteq> 0 \<longrightarrow> k < c)) \<and>
    (\<forall>a\<in>set (butlast acts). \<exists>s c prec p. a = Reduce s c prec p)"
proof -
  from index_row [OF assms] obtain h es
    where row: "(h, es) \<in> set parse_action_rows" "h \<le> i" "i < h + length es" by blast
  from row_actions [OF row(1)] obtain count reusable acts
    where e: "es = Entry count reusable # map Action acts" "length acts = count"
      "actions_at h = Some acts" "list_all action_ok acts" "h + length es \<le> length ts_parse_actions"
      "take (length es) (drop h ts_parse_actions) = es" "shift_last (map Action acts)" by blast
  have at: "ts_parse_actions ! j = es ! (j - h)" if "h \<le> j" "j < h + length es" for j
    using row_element [OF e(6,5) that] .
  have head: "ts_parse_actions ! h = Entry count reusable" using at [of h] e(1) by simp
  have body: "i = h \<or> ts_parse_actions ! i = Action (acts ! (i - h - 1))"
  proof (cases "i = h")
    case False
    then obtain k where k: "i - h = Suc k" using row(2) by (metis diff_is_0_eq le_antisym not0_implies_Suc)
    then have "k < length acts" using row(2,3) e(1) by auto
    with k at [OF row(2,3)] e(1) show ?thesis by simp
  qed simp
  have len: "length es = Suc count" using e(1,2) by simp
  then have h: "i \<le> h + count" "h + count < length ts_parse_actions" using row(3) e(5) by linarith+
  have shifts: "\<forall>s extra repetition. Shift s extra repetition \<in> set acts \<longrightarrow> s < STATE_COUNT"
    using e(4) by (auto simp: list_all_iff)
  have "h < length ts_parse_actions" using h by simp
  from reductions_fit_productions [OF this e(3)]
  have reds: "\<forall>s c prec p. Reduce s c prec p \<in> set acts \<longrightarrow>
       TOKEN_COUNT \<le> s \<and> s < SYMBOL_COUNT \<and> p < PRODUCTION_ID_COUNT \<and>
       (\<forall>e\<in>set (production_fields p). child_index e < c) \<and>
       (\<forall>k<MAX_ALIAS_SEQUENCE_LENGTH. ts_alias_sequences ! p ! k \<noteq> 0 \<longrightarrow> k < c)"
    using e(4) by (auto simp: list_all_iff symbol_reducible_def production_fits_def)
  show ?thesis
    by (rule exI [of _ h], rule exI [of _ count], rule exI [of _ reusable], rule exI [of _ acts], intro conjI ballI)
      (assumption | rule row(2) h head e(2,3) body shifts reds shift_last_butlast [OF e(7)])+
qed

theorem parse_actions_wellformed_witness:
  "\<exists>h count reusable acts. h \<le> 42 \<and> 42 \<le> h + count \<and> ts_parse_actions ! h = Entry count reusable \<and>
     actions_at h = Some acts \<and> length acts = count \<and>
     (\<forall>a\<in>set (butlast acts). \<exists>s c prec p. a = Reduce s c prec p)"
  using parse_actions_wellformed [of 42] length_ts_parse_actions by auto

end
