(* ===== verification/Mojo_Symbol_Properties.thy ===== *)
theory Mojo_Symbol_Properties
  imports Mojo_Symbol_Facts
begin

text \<open>
  The public symbols: \<open>ts_symbol_map\<close> gives one symbol for all symbols that a user of the parser
  cannot tell apart.
\<close>

section \<open>Symbols with the same key\<close>

lemma neighbours_agree_rest:
  "neighbours_agree (s # ss) \<Longrightarrow> t \<in> set ss \<Longrightarrow>
   key_code s < key_code t \<or> key_code s = key_code t \<and> ts_symbol_map ! s = ts_symbol_map ! t"
proof (induction ss arbitrary: s)
  case (Cons u us)
  then show ?case by (cases "t = u") (fastforce dest: less_trans)+
qed simp

lemma neighbours_agree_same:
  "neighbours_agree ss \<Longrightarrow> s \<in> set ss \<Longrightarrow> t \<in> set ss \<Longrightarrow> key_code s = key_code t \<Longrightarrow>
   ts_symbol_map ! s = ts_symbol_map ! t"
proof (induction ss)
  case (Cons u us)
  then have tl: "neighbours_agree us" by (cases us) auto
  consider "s = u" "t = u" | "s = u" "t \<in> set us" | "s \<in> set us" "t = u" | "s \<in> set us" "t \<in> set us"
    using Cons.prems by auto
  then show ?case
    using Cons.IH [OF tl] neighbours_agree_rest [OF Cons.prems(1)] Cons.prems(4) by cases force+
qed simp

lemma key_code_eq: "key_code s = key_code t \<longleftrightarrow> symbol_key s = symbol_key t"
proof -
  have "map (of_char :: char \<Rightarrow> int) xs = map of_char ys \<longleftrightarrow> xs = ys" for xs ys
    by (rule inj_map_eq_map) (simp add: inj_def)
  then show ?thesis by (auto simp: key_code_def symbol_key_def)
qed

lemma symbol_order_mem: "s < 350 \<longleftrightarrow> s \<in> set symbol_order"
proof -
  have "set symbol_order \<subseteq> {..<350}" using symbol_order_all(3) by (auto simp: list_all_iff)
  moreover have "card (set symbol_order) = 350"
    using symbol_order_all(1,2) by (simp add: distinct_card)
  ultimately have "set symbol_order = {..<350}" by (intro card_subset_eq) simp_all
  then show ?thesis by auto
qed

lemma public_symbol:
  assumes "s < 350"
  shows "ts_symbol_map ! s < 350" "symbol_key (ts_symbol_map ! s) = symbol_key s"
    "ts_symbol_map ! (ts_symbol_map ! s) = ts_symbol_map ! s"
  using public_symbol_keys assms by (auto simp: list_all_iff symbol_order_mem)

section \<open>Properties\<close>

text \<open>C36: Two symbols have the same public symbol exactly when they have the same name and are equally
  visible and named; the public symbol is a symbol of the grammar and its own public symbol, and it has
  the name and the visibility of the symbols it stands for. So a user who compares public symbols
  compares what the symbols look like.\<close>

theorem public_symbols:
  assumes "s < SYMBOL_COUNT + ALIAS_COUNT" "t < SYMBOL_COUNT + ALIAS_COUNT"
  shows "(ts_symbol_map ! s = ts_symbol_map ! t \<longleftrightarrow>
      ts_symbol_names ! s = ts_symbol_names ! t \<and>
      visible (ts_symbol_metadata ! s) = visible (ts_symbol_metadata ! t) \<and>
      named (ts_symbol_metadata ! s) = named (ts_symbol_metadata ! t)) \<and>
    ts_symbol_map ! s < SYMBOL_COUNT + ALIAS_COUNT \<and>
    ts_symbol_map ! (ts_symbol_map ! s) = ts_symbol_map ! s \<and>
    ts_symbol_names ! (ts_symbol_map ! s) = ts_symbol_names ! s"
proof -
  have b: "s < 350" "t < 350" using assms by (simp_all add: SYMBOL_COUNT_def ALIAS_COUNT_def)
  have "ts_symbol_map ! s = ts_symbol_map ! t \<longleftrightarrow> symbol_key s = symbol_key t"
    using neighbours_agree_same [OF symbol_order_agrees, of s t] public_symbol(2) [OF b(1)]
      public_symbol(2) [OF b(2)] b
    by (metis key_code_eq symbol_order_mem)
  then show ?thesis using public_symbol [OF b(1)]
    by (simp add: symbol_key_def SYMBOL_COUNT_def ALIAS_COUNT_def)
qed

theorem public_symbols_witness:
  "ts_symbol_names ! sym_tuple_pattern = ts_symbol_names ! 217 \<and>
   (ts_symbol_map ! sym_tuple_pattern = ts_symbol_map ! 217 \<longleftrightarrow>
      ts_symbol_names ! sym_tuple_pattern = ts_symbol_names ! 217 \<and>
      visible (ts_symbol_metadata ! sym_tuple_pattern) = visible (ts_symbol_metadata ! 217) \<and>
      named (ts_symbol_metadata ! sym_tuple_pattern) = named (ts_symbol_metadata ! 217))"
  using public_symbols [of sym_tuple_pattern 217]
  by (simp add: symbol_number_defs symbol_facts SYMBOL_COUNT_def ALIAS_COUNT_def)

end
