(* ===== verification/Mojo_Small_Tables.thy ===== *)
theory Mojo_Small_Tables
  imports C_Arrays Mojo_Grammar Mojo_Fields
begin

text \<open>
  The names of the fields, the symbols under which nonterminals appear, and the supertypes of the grammar
  (\<^verbatim>\<open>grammars/tree-sitter-mojo/src/parser.c\<close>). Definitions only.
\<close>

section \<open>Arrays without a size\<close>

text \<open>The largest index that is named gives the size of an array declared as \<open>[]\<close>.\<close>

definition unsized :: "'a \<Rightarrow> (nat \<times> 'a) list \<Rightarrow> 'a list" where
  "unsized z ds = designated_runs z (map (\<lambda>(i, x). (i, [x])) ds)"

section \<open>Field names\<close>

definition ts_field_names :: "string option list" where "ts_field_names = unsized None [
    (0, None), (field_alternative, Some ''alternative''), (field_argument, Some ''argument''),
    (field_arguments, Some ''arguments''), (field_attribute, Some ''attribute''),
    (field_body, Some ''body''), (field_cause, Some ''cause''), (field_code, Some ''code''),
    (field_comptime, Some ''comptime''), (field_condition, Some ''condition''),
    (field_consequence, Some ''consequence''), (field_default, Some ''default''),
    (field_definition, Some ''definition''), (field_expression, Some ''expression''),
    (field_format_specifier, Some ''format_specifier''), (field_function, Some ''function''),
    (field_guard, Some ''guard''), (field_key, Some ''key''), (field_left, Some ''left''),
    (field_module_name, Some ''module_name''), (field_name, Some ''name''),
    (field_object, Some ''object''), (field_operator, Some ''operator''),
    (field_operators, Some ''operators''), (field_parameter, Some ''parameter''),
    (field_parameters, Some ''parameters''), (field_raises_type, Some ''raises_type''),
    (field_return_type, Some ''return_type''), (field_right, Some ''right''),
    (field_subject, Some ''subject''), (field_subscript, Some ''subscript''),
    (field_superclasses, Some ''superclasses''), (field_supertraits, Some ''supertraits''),
    (field_type, Some ''type''), (field_type_conversion, Some ''type_conversion''),
    (field_type_parameters, Some ''type_parameters''), (field_value, Some ''value'')]"

section \<open>Aliases of nonterminals\<close>

text \<open>Groups of a nonterminal, the number of symbols it may appear as, and these symbols; 0 ends the list.\<close>

definition ts_non_terminal_alias_map :: "nat list" where "ts_non_terminal_alias_map = [
    sym__simple_statements, 2, sym__simple_statements, sym_block, sym_parenthesized_list_splat,
    2, sym_parenthesized_list_splat, sym_parenthesized_expression, sym_list_splat_pattern, 2,
    sym_list_splat_pattern, sym_list_splat, sym_expression, 2, sym_expression,
    alias_sym_as_pattern_target, sym_interpolation, 2, sym_interpolation,
    alias_sym_format_expression, 0]"

section \<open>Supertypes\<close>

definition SUPERTYPE_COUNT :: nat where "SUPERTYPE_COUNT = 5"

definition ts_supertype_symbols :: "nat list" where "ts_supertype_symbols = [
    sym_expression, sym_expression_statement, sym_parameter, sym_pattern, sym_primary_expression]"

definition ts_supertype_map_slices :: "TSMapSlice list" where "ts_supertype_map_slices = unsized (map_slice 0 0) [
    (sym_expression, map_slice 0 8), (sym_expression_statement, map_slice 8 5),
    (sym_parameter, map_slice 13 10), (sym_pattern, map_slice 23 6),
    (sym_primary_expression, map_slice 29 29)]"

definition supertype_map_entry_rows :: "(nat \<times> nat list) list" where "supertype_map_entry_rows = [
    (0, [
      sym_as_pattern, sym_boolean_operator, sym_comparison_operator, sym_conditional_expression,
      sym_lambda, sym_named_expression, sym_not_operator, sym_primary_expression]),
    (8, [
      sym_assignment, sym_augmented_assignment, sym_expression, sym_tuple_expression, sym_yield]),
    (13, [
      sym_default_parameter, sym_dictionary_splat_pattern, sym_identifier, sym_keyword_separator,
      sym_list_splat_pattern, sym_positional_separator, sym_self_parameter, sym_tuple_pattern,
      sym_typed_default_parameter, sym_typed_parameter]),
    (23, [
      sym_attribute, sym_identifier, sym_list_pattern, sym_list_splat_pattern, sym_subscript,
      sym_tuple_pattern]),
    (29, [
      sym_attribute, sym_await, sym_binary_operator, sym_call, sym_comptime_expression,
      sym_concatenated_string, sym_dictionary, sym_dictionary_comprehension, sym_ellipsis,
      sym_false, sym_float, sym_generator_expression, sym_identifier, sym_integer, sym_list,
      sym_list_comprehension, sym_list_splat, sym_mlir_type, sym_none,
      sym_parenthesized_expression, sym_set, sym_set_comprehension, sym_string,
      sym_struct_literal, sym_subscript, sym_transfer_expression, sym_true, sym_tuple,
      sym_unary_operator])]"

definition ts_supertype_map_entries :: "nat list" where
  "ts_supertype_map_entries = designated_runs 0 supertype_map_entry_rows"

end
