(* ===== verification/Mojo_Supertype_Proofs.thy ===== *)
theory Mojo_Supertype_Proofs
  imports Mojo_Small_Tables Mojo_Symbol_Facts Mojo_Actions
begin

text \<open>
  In every group of \<open>ts_parse_actions\<close> a reduction to a supertype has one child; checked block by block.
\<close>

section \<open>Reductions\<close>

text \<open>A reduction to a supertype has one child.\<close>

fun single_child :: "TSParseActionEntry \<Rightarrow> bool" where
  "single_child (Action (Reduce s c prec p)) \<longleftrightarrow> s \<in> set ts_supertype_symbols \<longrightarrow> c = 1"
| "single_child e \<longleftrightarrow> True"

lemma single_child_simps:
  "single_child (ENTRY count reusable)" "single_child (SHIFT t)" "single_child (SHIFT_REPEAT t)"
  "single_child SHIFT_EXTRA" "single_child RECOVER" "single_child ACCEPT_INPUT"
  "single_child (REDUCE s 1 prec p)"
  "s \<notin> set ts_supertype_symbols \<Longrightarrow> single_child (REDUCE s c prec p)"
  by (simp_all add: ENTRY_def SHIFT_def SHIFT_REPEAT_def SHIFT_EXTRA_def REDUCE_def RECOVER_def ACCEPT_INPUT_def)

lemma other_symbols:
  "aux_sym__collection_elements_repeat1 \<notin> set ts_supertype_symbols"
  "aux_sym__comprehension_clauses_repeat1 \<notin> set ts_supertype_symbols"
  "aux_sym__function_effects \<notin> set ts_supertype_symbols"
  "aux_sym__import_list_repeat1 \<notin> set ts_supertype_symbols"
  "aux_sym__match_block_repeat1 \<notin> set ts_supertype_symbols"
  "aux_sym__parameters_repeat1 \<notin> set ts_supertype_symbols"
  "aux_sym__patterns_repeat1 \<notin> set ts_supertype_symbols"
  "aux_sym__simple_statements_repeat1 \<notin> set ts_supertype_symbols"
  "aux_sym_argument_list_repeat1 \<notin> set ts_supertype_symbols"
  "aux_sym_assert_statement_repeat1 \<notin> set ts_supertype_symbols"
  "aux_sym_called_type_repeat1 \<notin> set ts_supertype_symbols"
  "aux_sym_capture_list_repeat1 \<notin> set ts_supertype_symbols"
  "aux_sym_case_clause_repeat1 \<notin> set ts_supertype_symbols"
  "aux_sym_comparison_operator_repeat1 \<notin> set ts_supertype_symbols"
  "aux_sym_concatenated_string_repeat1 \<notin> set ts_supertype_symbols"
  "aux_sym_decorated_definition_repeat1 \<notin> set ts_supertype_symbols"
  "aux_sym_dict_pattern_repeat1 \<notin> set ts_supertype_symbols"
  "aux_sym_dictionary_repeat1 \<notin> set ts_supertype_symbols"
  "aux_sym_dotted_name_repeat1 \<notin> set ts_supertype_symbols"
  "aux_sym_for_in_clause_repeat1 \<notin> set ts_supertype_symbols"
  "aux_sym_format_specifier_repeat1 \<notin> set ts_supertype_symbols"
  "aux_sym_function_definition_repeat1 \<notin> set ts_supertype_symbols"
  "aux_sym_function_type_repeat1 \<notin> set ts_supertype_symbols"
  "aux_sym_global_statement_repeat1 \<notin> set ts_supertype_symbols"
  "aux_sym_if_statement_repeat1 \<notin> set ts_supertype_symbols"
  "aux_sym_import_prefix_repeat1 \<notin> set ts_supertype_symbols"
  "aux_sym_intersection_type_repeat1 \<notin> set ts_supertype_symbols"
  "aux_sym_match_statement_repeat1 \<notin> set ts_supertype_symbols"
  "aux_sym_mlir_fragment_repeat1 \<notin> set ts_supertype_symbols"
  "aux_sym_module_repeat1 \<notin> set ts_supertype_symbols"
  "aux_sym_parameter_list_repeat1 \<notin> set ts_supertype_symbols"
  "aux_sym_print_statement_repeat1 \<notin> set ts_supertype_symbols"
  "aux_sym_result_convention_repeat1 \<notin> set ts_supertype_symbols"
  "aux_sym_string_content_repeat1 \<notin> set ts_supertype_symbols"
  "aux_sym_string_repeat1 \<notin> set ts_supertype_symbols"
  "aux_sym_struct_literal_repeat1 \<notin> set ts_supertype_symbols"
  "aux_sym_subscript_repeat1 \<notin> set ts_supertype_symbols"
  "aux_sym_superclass_list_repeat1 \<notin> set ts_supertype_symbols"
  "aux_sym_try_statement_repeat1 \<notin> set ts_supertype_symbols"
  "aux_sym_try_statement_repeat2 \<notin> set ts_supertype_symbols"
  "aux_sym_type_parameter_repeat1 \<notin> set ts_supertype_symbols"
  "aux_sym_unified_clause_repeat1 \<notin> set ts_supertype_symbols"
  "aux_sym_union_pattern_repeat1 \<notin> set ts_supertype_symbols"
  "aux_sym_with_clause_repeat1 \<notin> set ts_supertype_symbols"
  "sym__as_pattern \<notin> set ts_supertype_symbols"
  "sym__collection_elements \<notin> set ts_supertype_symbols"
  "sym__comprehension_clauses \<notin> set ts_supertype_symbols"
  "sym__expression_within_for_in_clause \<notin> set ts_supertype_symbols"
  "sym__f_expression \<notin> set ts_supertype_symbols"
  "sym__import_list \<notin> set ts_supertype_symbols"
  "sym__intersection_operand \<notin> set ts_supertype_symbols"
  "sym__is_not \<notin> set ts_supertype_symbols"
  "sym__key_value_pattern \<notin> set ts_supertype_symbols"
  "sym__list_pattern \<notin> set ts_supertype_symbols"
  "sym__match_block \<notin> set ts_supertype_symbols"
  "sym__named_expression_lhs \<notin> set ts_supertype_symbols"
  "sym__not_in \<notin> set ts_supertype_symbols"
  "sym__parameters \<notin> set ts_supertype_symbols"
  "sym__patterns \<notin> set ts_supertype_symbols"
  "sym__raises_type \<notin> set ts_supertype_symbols"
  "sym__ref_convention \<notin> set ts_supertype_symbols"
  "sym__right_hand_side \<notin> set ts_supertype_symbols"
  "sym__simple_pattern \<notin> set ts_supertype_symbols"
  "sym__simple_statements \<notin> set ts_supertype_symbols"
  "sym__tuple_pattern \<notin> set ts_supertype_symbols"
  "sym__type_parameter_default \<notin> set ts_supertype_symbols"
  "sym_abi_specifier \<notin> set ts_supertype_symbols"
  "sym_aliased_import \<notin> set ts_supertype_symbols"
  "sym_argument_convention \<notin> set ts_supertype_symbols"
  "sym_argument_list \<notin> set ts_supertype_symbols"
  "sym_as_pattern \<notin> set ts_supertype_symbols"
  "sym_assert_statement \<notin> set ts_supertype_symbols"
  "sym_assignment \<notin> set ts_supertype_symbols"
  "sym_attribute \<notin> set ts_supertype_symbols"
  "sym_augmented_assignment \<notin> set ts_supertype_symbols"
  "sym_await \<notin> set ts_supertype_symbols"
  "sym_binary_operator \<notin> set ts_supertype_symbols"
  "sym_block \<notin> set ts_supertype_symbols"
  "sym_boolean_operator \<notin> set ts_supertype_symbols"
  "sym_break_statement \<notin> set ts_supertype_symbols"
  "sym_call \<notin> set ts_supertype_symbols"
  "sym_called_type \<notin> set ts_supertype_symbols"
  "sym_capture_list \<notin> set ts_supertype_symbols"
  "sym_case_clause \<notin> set ts_supertype_symbols"
  "sym_case_pattern \<notin> set ts_supertype_symbols"
  "sym_chevron \<notin> set ts_supertype_symbols"
  "sym_class_definition \<notin> set ts_supertype_symbols"
  "sym_class_pattern \<notin> set ts_supertype_symbols"
  "sym_comparison_operator \<notin> set ts_supertype_symbols"
  "sym_complex_pattern \<notin> set ts_supertype_symbols"
  "sym_comptime_assert_statement \<notin> set ts_supertype_symbols"
  "sym_comptime_expression \<notin> set ts_supertype_symbols"
  "sym_comptime_statement \<notin> set ts_supertype_symbols"
  "sym_concatenated_string \<notin> set ts_supertype_symbols"
  "sym_conditional_expression \<notin> set ts_supertype_symbols"
  "sym_constrained_type \<notin> set ts_supertype_symbols"
  "sym_continue_statement \<notin> set ts_supertype_symbols"
  "sym_decorated_definition \<notin> set ts_supertype_symbols"
  "sym_decorator \<notin> set ts_supertype_symbols"
  "sym_default_parameter \<notin> set ts_supertype_symbols"
  "sym_delete_statement \<notin> set ts_supertype_symbols"
  "sym_dict_pattern \<notin> set ts_supertype_symbols"
  "sym_dictionary \<notin> set ts_supertype_symbols"
  "sym_dictionary_comprehension \<notin> set ts_supertype_symbols"
  "sym_dictionary_splat \<notin> set ts_supertype_symbols"
  "sym_dictionary_splat_pattern \<notin> set ts_supertype_symbols"
  "sym_dotted_name \<notin> set ts_supertype_symbols"
  "sym_elif_clause \<notin> set ts_supertype_symbols"
  "sym_else_clause \<notin> set ts_supertype_symbols"
  "sym_except_clause \<notin> set ts_supertype_symbols"
  "sym_except_group_clause \<notin> set ts_supertype_symbols"
  "sym_exec_statement \<notin> set ts_supertype_symbols"
  "sym_expression_list \<notin> set ts_supertype_symbols"
  "sym_extension_definition \<notin> set ts_supertype_symbols"
  "sym_finally_clause \<notin> set ts_supertype_symbols"
  "sym_for_in_clause \<notin> set ts_supertype_symbols"
  "sym_for_statement \<notin> set ts_supertype_symbols"
  "sym_format_specifier \<notin> set ts_supertype_symbols"
  "sym_function_definition \<notin> set ts_supertype_symbols"
  "sym_function_type \<notin> set ts_supertype_symbols"
  "sym_future_import_statement \<notin> set ts_supertype_symbols"
  "sym_generator_expression \<notin> set ts_supertype_symbols"
  "sym_generic_type \<notin> set ts_supertype_symbols"
  "sym_global_statement \<notin> set ts_supertype_symbols"
  "sym_if_clause \<notin> set ts_supertype_symbols"
  "sym_if_statement \<notin> set ts_supertype_symbols"
  "sym_import_from_statement \<notin> set ts_supertype_symbols"
  "sym_import_prefix \<notin> set ts_supertype_symbols"
  "sym_import_statement \<notin> set ts_supertype_symbols"
  "sym_infer_separator \<notin> set ts_supertype_symbols"
  "sym_interpolation \<notin> set ts_supertype_symbols"
  "sym_intersection_type \<notin> set ts_supertype_symbols"
  "sym_keyword_argument \<notin> set ts_supertype_symbols"
  "sym_keyword_pattern \<notin> set ts_supertype_symbols"
  "sym_keyword_separator \<notin> set ts_supertype_symbols"
  "sym_lambda \<notin> set ts_supertype_symbols"
  "sym_lambda_parameters \<notin> set ts_supertype_symbols"
  "sym_lambda_within_for_in_clause \<notin> set ts_supertype_symbols"
  "sym_list \<notin> set ts_supertype_symbols"
  "sym_list_comprehension \<notin> set ts_supertype_symbols"
  "sym_list_pattern \<notin> set ts_supertype_symbols"
  "sym_list_splat \<notin> set ts_supertype_symbols"
  "sym_list_splat_pattern \<notin> set ts_supertype_symbols"
  "sym_match_statement \<notin> set ts_supertype_symbols"
  "sym_member_type \<notin> set ts_supertype_symbols"
  "sym_mlir_fragment \<notin> set ts_supertype_symbols"
  "sym_mlir_region \<notin> set ts_supertype_symbols"
  "sym_mlir_type \<notin> set ts_supertype_symbols"
  "sym_module \<notin> set ts_supertype_symbols"
  "sym_named_expression \<notin> set ts_supertype_symbols"
  "sym_nonlocal_statement \<notin> set ts_supertype_symbols"
  "sym_not_operator \<notin> set ts_supertype_symbols"
  "sym_pair \<notin> set ts_supertype_symbols"
  "sym_parameter_list \<notin> set ts_supertype_symbols"
  "sym_parameterized_alias_statement \<notin> set ts_supertype_symbols"
  "sym_parameters \<notin> set ts_supertype_symbols"
  "sym_parenthesized_expression \<notin> set ts_supertype_symbols"
  "sym_parenthesized_list_splat \<notin> set ts_supertype_symbols"
  "sym_pass_statement \<notin> set ts_supertype_symbols"
  "sym_pattern_list \<notin> set ts_supertype_symbols"
  "sym_positional_separator \<notin> set ts_supertype_symbols"
  "sym_print_statement \<notin> set ts_supertype_symbols"
  "sym_raise_statement \<notin> set ts_supertype_symbols"
  "sym_relative_import \<notin> set ts_supertype_symbols"
  "sym_result_convention \<notin> set ts_supertype_symbols"
  "sym_return_statement \<notin> set ts_supertype_symbols"
  "sym_self_parameter \<notin> set ts_supertype_symbols"
  "sym_set \<notin> set ts_supertype_symbols"
  "sym_set_comprehension \<notin> set ts_supertype_symbols"
  "sym_slice \<notin> set ts_supertype_symbols"
  "sym_slice_keyword_argument \<notin> set ts_supertype_symbols"
  "sym_splat_pattern \<notin> set ts_supertype_symbols"
  "sym_splat_type \<notin> set ts_supertype_symbols"
  "sym_string \<notin> set ts_supertype_symbols"
  "sym_string_content \<notin> set ts_supertype_symbols"
  "sym_struct_literal \<notin> set ts_supertype_symbols"
  "sym_struct_literal_field \<notin> set ts_supertype_symbols"
  "sym_subscript \<notin> set ts_supertype_symbols"
  "sym_superclass_list \<notin> set ts_supertype_symbols"
  "sym_trait_definition \<notin> set ts_supertype_symbols"
  "sym_trait_list \<notin> set ts_supertype_symbols"
  "sym_transfer_expression \<notin> set ts_supertype_symbols"
  "sym_try_statement \<notin> set ts_supertype_symbols"
  "sym_tuple \<notin> set ts_supertype_symbols"
  "sym_tuple_expression \<notin> set ts_supertype_symbols"
  "sym_tuple_pattern \<notin> set ts_supertype_symbols"
  "sym_type \<notin> set ts_supertype_symbols"
  "sym_type_alias_statement \<notin> set ts_supertype_symbols"
  "sym_type_parameter \<notin> set ts_supertype_symbols"
  "sym_typed_default_parameter \<notin> set ts_supertype_symbols"
  "sym_typed_parameter \<notin> set ts_supertype_symbols"
  "sym_unary_operator \<notin> set ts_supertype_symbols"
  "sym_unified_clause \<notin> set ts_supertype_symbols"
  "sym_union_pattern \<notin> set ts_supertype_symbols"
  "sym_union_type \<notin> set ts_supertype_symbols"
  "sym_where_clause \<notin> set ts_supertype_symbols"
  "sym_while_statement \<notin> set ts_supertype_symbols"
  "sym_wildcard_import \<notin> set ts_supertype_symbols"
  "sym_wildcard_origin \<notin> set ts_supertype_symbols"
  "sym_with_clause \<notin> set ts_supertype_symbols"
  "sym_with_item \<notin> set ts_supertype_symbols"
  "sym_with_statement \<notin> set ts_supertype_symbols"
  "sym_yield \<notin> set ts_supertype_symbols"
  unfolding ts_supertype_symbols_def by (simp_all add: symbol_number_defs)

section \<open>The blocks\<close>

declare single_child_simps [simp] other_symbols [simp] One_nat_def [simp del]

lemma parse_actions_0_single: "list_all (\<lambda>(v, es). list_all single_child es) parse_actions_0"
  unfolding parse_actions_0_def by simp

lemma parse_actions_1_single: "list_all (\<lambda>(v, es). list_all single_child es) parse_actions_1"
  unfolding parse_actions_1_def by simp

lemma parse_actions_2_single: "list_all (\<lambda>(v, es). list_all single_child es) parse_actions_2"
  unfolding parse_actions_2_def by simp

lemma parse_actions_3_single: "list_all (\<lambda>(v, es). list_all single_child es) parse_actions_3"
  unfolding parse_actions_3_def by simp

lemma parse_actions_4_single: "list_all (\<lambda>(v, es). list_all single_child es) parse_actions_4"
  unfolding parse_actions_4_def by simp

lemma parse_actions_5_single: "list_all (\<lambda>(v, es). list_all single_child es) parse_actions_5"
  unfolding parse_actions_5_def by simp

lemma parse_actions_6_single: "list_all (\<lambda>(v, es). list_all single_child es) parse_actions_6"
  unfolding parse_actions_6_def by simp

lemma parse_actions_7_single: "list_all (\<lambda>(v, es). list_all single_child es) parse_actions_7"
  unfolding parse_actions_7_def by simp

lemma parse_actions_8_single: "list_all (\<lambda>(v, es). list_all single_child es) parse_actions_8"
  unfolding parse_actions_8_def by simp

lemma parse_actions_9_single: "list_all (\<lambda>(v, es). list_all single_child es) parse_actions_9"
  unfolding parse_actions_9_def by simp

lemma parse_actions_10_single: "list_all (\<lambda>(v, es). list_all single_child es) parse_actions_10"
  unfolding parse_actions_10_def by simp

lemma parse_actions_11_single: "list_all (\<lambda>(v, es). list_all single_child es) parse_actions_11"
  unfolding parse_actions_11_def by simp

lemma parse_actions_12_single: "list_all (\<lambda>(v, es). list_all single_child es) parse_actions_12"
  unfolding parse_actions_12_def by simp

lemma parse_actions_13_single: "list_all (\<lambda>(v, es). list_all single_child es) parse_actions_13"
  unfolding parse_actions_13_def by simp

lemma parse_actions_14_single: "list_all (\<lambda>(v, es). list_all single_child es) parse_actions_14"
  unfolding parse_actions_14_def by simp

lemma parse_actions_15_single: "list_all (\<lambda>(v, es). list_all single_child es) parse_actions_15"
  unfolding parse_actions_15_def by simp

lemma parse_actions_16_single: "list_all (\<lambda>(v, es). list_all single_child es) parse_actions_16"
  unfolding parse_actions_16_def by simp

lemma parse_actions_17_single: "list_all (\<lambda>(v, es). list_all single_child es) parse_actions_17"
  unfolding parse_actions_17_def by simp

lemma parse_actions_18_single: "list_all (\<lambda>(v, es). list_all single_child es) parse_actions_18"
  unfolding parse_actions_18_def by simp

lemma parse_actions_19_single: "list_all (\<lambda>(v, es). list_all single_child es) parse_actions_19"
  unfolding parse_actions_19_def by simp

lemma parse_actions_20_single: "list_all (\<lambda>(v, es). list_all single_child es) parse_actions_20"
  unfolding parse_actions_20_def by simp

lemma parse_actions_21_single: "list_all (\<lambda>(v, es). list_all single_child es) parse_actions_21"
  unfolding parse_actions_21_def by simp

lemma parse_actions_22_single: "list_all (\<lambda>(v, es). list_all single_child es) parse_actions_22"
  unfolding parse_actions_22_def by simp

lemma parse_actions_23_single: "list_all (\<lambda>(v, es). list_all single_child es) parse_actions_23"
  unfolding parse_actions_23_def by simp

lemma parse_actions_24_single: "list_all (\<lambda>(v, es). list_all single_child es) parse_actions_24"
  unfolding parse_actions_24_def by simp

lemma parse_actions_25_single: "list_all (\<lambda>(v, es). list_all single_child es) parse_actions_25"
  unfolding parse_actions_25_def by simp

lemma parse_actions_26_single: "list_all (\<lambda>(v, es). list_all single_child es) parse_actions_26"
  unfolding parse_actions_26_def by simp

lemma parse_actions_27_single: "list_all (\<lambda>(v, es). list_all single_child es) parse_actions_27"
  unfolding parse_actions_27_def by simp

lemma parse_actions_28_single: "list_all (\<lambda>(v, es). list_all single_child es) parse_actions_28"
  unfolding parse_actions_28_def by simp

lemma parse_actions_29_single: "list_all (\<lambda>(v, es). list_all single_child es) parse_actions_29"
  unfolding parse_actions_29_def by simp

lemma parse_actions_30_single: "list_all (\<lambda>(v, es). list_all single_child es) parse_actions_30"
  unfolding parse_actions_30_def by simp

lemma parse_actions_31_single: "list_all (\<lambda>(v, es). list_all single_child es) parse_actions_31"
  unfolding parse_actions_31_def by simp

lemma parse_actions_32_single: "list_all (\<lambda>(v, es). list_all single_child es) parse_actions_32"
  unfolding parse_actions_32_def by simp

lemma parse_actions_33_single: "list_all (\<lambda>(v, es). list_all single_child es) parse_actions_33"
  unfolding parse_actions_33_def by simp

lemma parse_actions_34_single: "list_all (\<lambda>(v, es). list_all single_child es) parse_actions_34"
  unfolding parse_actions_34_def by simp

lemma parse_actions_35_single: "list_all (\<lambda>(v, es). list_all single_child es) parse_actions_35"
  unfolding parse_actions_35_def by simp

lemma parse_actions_36_single: "list_all (\<lambda>(v, es). list_all single_child es) parse_actions_36"
  unfolding parse_actions_36_def by simp

lemma parse_actions_37_single: "list_all (\<lambda>(v, es). list_all single_child es) parse_actions_37"
  unfolding parse_actions_37_def by simp

lemma parse_actions_38_single: "list_all (\<lambda>(v, es). list_all single_child es) parse_actions_38"
  unfolding parse_actions_38_def by simp

lemma parse_actions_39_single: "list_all (\<lambda>(v, es). list_all single_child es) parse_actions_39"
  unfolding parse_actions_39_def by simp

lemma parse_actions_40_single: "list_all (\<lambda>(v, es). list_all single_child es) parse_actions_40"
  unfolding parse_actions_40_def by simp

lemma parse_actions_41_single: "list_all (\<lambda>(v, es). list_all single_child es) parse_actions_41"
  unfolding parse_actions_41_def by simp

lemma parse_actions_42_single: "list_all (\<lambda>(v, es). list_all single_child es) parse_actions_42"
  unfolding parse_actions_42_def by simp

lemma parse_actions_43_single: "list_all (\<lambda>(v, es). list_all single_child es) parse_actions_43"
  unfolding parse_actions_43_def by simp

lemma parse_actions_44_single: "list_all (\<lambda>(v, es). list_all single_child es) parse_actions_44"
  unfolding parse_actions_44_def by simp

lemma parse_actions_45_single: "list_all (\<lambda>(v, es). list_all single_child es) parse_actions_45"
  unfolding parse_actions_45_def by simp

lemma parse_actions_46_single: "list_all (\<lambda>(v, es). list_all single_child es) parse_actions_46"
  unfolding parse_actions_46_def by simp

lemma parse_actions_47_single: "list_all (\<lambda>(v, es). list_all single_child es) parse_actions_47"
  unfolding parse_actions_47_def by simp

lemma parse_actions_48_single: "list_all (\<lambda>(v, es). list_all single_child es) parse_actions_48"
  unfolding parse_actions_48_def by simp

lemma parse_actions_49_single: "list_all (\<lambda>(v, es). list_all single_child es) parse_actions_49"
  unfolding parse_actions_49_def by simp

lemma parse_actions_50_single: "list_all (\<lambda>(v, es). list_all single_child es) parse_actions_50"
  unfolding parse_actions_50_def by simp

lemma parse_actions_51_single: "list_all (\<lambda>(v, es). list_all single_child es) parse_actions_51"
  unfolding parse_actions_51_def by simp

lemma parse_actions_52_single: "list_all (\<lambda>(v, es). list_all single_child es) parse_actions_52"
  unfolding parse_actions_52_def by simp

lemma parse_actions_53_single: "list_all (\<lambda>(v, es). list_all single_child es) parse_actions_53"
  unfolding parse_actions_53_def by simp

lemma parse_actions_54_single: "list_all (\<lambda>(v, es). list_all single_child es) parse_actions_54"
  unfolding parse_actions_54_def by simp

lemma parse_actions_55_single: "list_all (\<lambda>(v, es). list_all single_child es) parse_actions_55"
  unfolding parse_actions_55_def by simp

lemma parse_actions_56_single: "list_all (\<lambda>(v, es). list_all single_child es) parse_actions_56"
  unfolding parse_actions_56_def by simp

lemma parse_actions_57_single: "list_all (\<lambda>(v, es). list_all single_child es) parse_actions_57"
  unfolding parse_actions_57_def by simp

lemma parse_actions_58_single: "list_all (\<lambda>(v, es). list_all single_child es) parse_actions_58"
  unfolding parse_actions_58_def by simp

lemma parse_actions_59_single: "list_all (\<lambda>(v, es). list_all single_child es) parse_actions_59"
  unfolding parse_actions_59_def by simp

lemma parse_actions_60_single: "list_all (\<lambda>(v, es). list_all single_child es) parse_actions_60"
  unfolding parse_actions_60_def by simp

lemma parse_actions_61_single: "list_all (\<lambda>(v, es). list_all single_child es) parse_actions_61"
  unfolding parse_actions_61_def by simp

declare single_child_simps [simp del] other_symbols [simp del] One_nat_def [simp]

lemma parse_action_rows_single: "list_all (\<lambda>(v, es). list_all single_child es) parse_action_rows"
  unfolding parse_action_rows_def
  by (simp add:
    parse_actions_0_single parse_actions_1_single parse_actions_2_single parse_actions_3_single
    parse_actions_4_single parse_actions_5_single parse_actions_6_single parse_actions_7_single
    parse_actions_8_single parse_actions_9_single parse_actions_10_single parse_actions_11_single
    parse_actions_12_single parse_actions_13_single parse_actions_14_single
    parse_actions_15_single parse_actions_16_single parse_actions_17_single
    parse_actions_18_single parse_actions_19_single parse_actions_20_single
    parse_actions_21_single parse_actions_22_single parse_actions_23_single
    parse_actions_24_single parse_actions_25_single parse_actions_26_single
    parse_actions_27_single parse_actions_28_single parse_actions_29_single
    parse_actions_30_single parse_actions_31_single parse_actions_32_single
    parse_actions_33_single parse_actions_34_single parse_actions_35_single
    parse_actions_36_single parse_actions_37_single parse_actions_38_single
    parse_actions_39_single parse_actions_40_single parse_actions_41_single
    parse_actions_42_single parse_actions_43_single parse_actions_44_single
    parse_actions_45_single parse_actions_46_single parse_actions_47_single
    parse_actions_48_single parse_actions_49_single parse_actions_50_single
    parse_actions_51_single parse_actions_52_single parse_actions_53_single
    parse_actions_54_single parse_actions_55_single parse_actions_56_single
    parse_actions_57_single parse_actions_58_single parse_actions_59_single
    parse_actions_60_single parse_actions_61_single)

end
