(* ===== verification/Mojo_Supertype_Properties.thy ===== *)
theory Mojo_Supertype_Properties
  imports Mojo_Supertype_Proofs Mojo_Table_Properties
begin

text \<open>
  The small tables of the grammar: field names, the symbols under which nonterminals appear, and the
  supertypes, which are hidden symbols over exactly one child.
\<close>

section \<open>Arrays without a size\<close>

lemma single_runs:
  "map fst ds = [k..<k + length ds] \<Longrightarrow>
   runs_end k (map (\<lambda>(i, x). (i, [x])) ds) = Some (k + length ds)"
proof (induction ds arbitrary: k)
  case (Cons d ds)
  have "[k..<k + length (d # ds)] = k # [Suc k..<Suc k + length ds]"
    by (simp add: upt_conv_Cons del: upt_Suc)
  with Cons.prems have "fst d = k" "map fst ds = [Suc k..<Suc k + length ds]" by (simp_all del: upt_Suc)
  with Cons.IH [OF this(2)] show ?case by (cases d) simp
qed simp

lemma unsized_dense:
  assumes "map fst ds = [0..<length ds]"
  shows "unsized z ds = map snd ds"
proof -
  have "concat (map (\<lambda>d. snd (case d of (i, x) \<Rightarrow> (i, [x]))) ds) = map snd ds" by (induction ds) auto
  with designated_runs_concat(1) [of "map (\<lambda>(i, x). (i, [x])) ds" "length ds" z] single_runs [of ds 0] assms
  show ?thesis by (simp add: unsized_def comp_def)
qed

lemma unsized_nth:
  assumes "(i, x) \<in> set ds"
  shows "unsized z ds ! i = the (map_of (rev ds) i)"
proof -
  have elements: "run_elements (map (\<lambda>(i, x). (i, [x])) ds) = ds" by (induction ds) auto
  have "i < runs_size (map (\<lambda>(i, x). (i, [x])) ds)" using assms by (induction ds) auto
  moreover obtain y where "map_of (rev ds) i = Some y"
    using assms by (cases "map_of (rev ds) i") (auto simp: map_of_eq_None_iff rev_image_eqI)
  ultimately show ?thesis by (simp add: unsized_def designated_runs_def designated_nth elements)
qed

section \<open>Field names\<close>

text \<open>Every field but 0, the number of no field, has a name, and no two fields have the same name.\<close>

lemma field_names:
  "length ts_field_names = FIELD_COUNT + 1" "ts_field_names ! 0 = None"
  "None \<notin> set (tl ts_field_names)" "distinct ts_field_names"
proof -
  note names = ts_field_names_def [unfolded field_defs, THEN trans, OF unsized_dense]
  show "length ts_field_names = FIELD_COUNT + 1" "ts_field_names ! 0 = None"
    "None \<notin> set (tl ts_field_names)" "distinct ts_field_names"
    by (subst names, simp add: upt_rec_numeral, simp add: FIELD_COUNT_def)+
qed

section \<open>Aliases of nonterminals\<close>

text \<open>The groups of \<open>ts_non_terminal_alias_map\<close>, as a reader takes them off the list.\<close>

function alias_groups :: "nat list \<Rightarrow> (nat \<times> nat list) list" where
  "alias_groups [] = []"
| "alias_groups [x] = []"
| "alias_groups (x # n # xs) = (if x = 0 then [] else (x, take n xs) # alias_groups (drop n xs))"
  by pat_completeness auto
termination by (relation "measure length") auto

text \<open>Each group belongs to a nonterminal, which is the first symbol that it may appear as.\<close>

lemma alias_map_groups:
  "list_all (\<lambda>(x, xs). TOKEN_COUNT \<le> x \<and> x < SYMBOL_COUNT \<and> hd xs = x \<and> length xs = 2)
     (alias_groups ts_non_terminal_alias_map)"
  "length (alias_groups ts_non_terminal_alias_map) = 5"
  unfolding ts_non_terminal_alias_map_def
  by (simp_all add: symbol_number_defs TOKEN_COUNT_def SYMBOL_COUNT_def)

section \<open>Supertypes\<close>

definition subtypes :: "nat \<Rightarrow> nat list" where
  "subtypes s = (let sl = ts_supertype_map_slices ! s
     in take (slice_length sl) (drop (slice_index sl) ts_supertype_map_entries))"

lemma supertype_entry_runs: "runs_end 0 supertype_map_entry_rows = Some 58"
  by (simp add: supertype_map_entry_rows_def runs_end.simps(2))

lemma supertype_slices:
  "ts_supertype_map_slices ! sym_expression = map_slice 0 8"
  "ts_supertype_map_slices ! sym_expression_statement = map_slice 8 5"
  "ts_supertype_map_slices ! sym_parameter = map_slice 13 10"
  "ts_supertype_map_slices ! sym_pattern = map_slice 23 6"
  "ts_supertype_map_slices ! sym_primary_expression = map_slice 29 29"
  unfolding ts_supertype_map_slices_def
  by (subst unsized_nth, force, simp add: symbol_number_defs)+

text \<open>The metadata of the subtypes and of the supertypes.\<close>

definition presented :: "nat \<Rightarrow> bool" where
  "presented t \<longleftrightarrow> t \<in> set ts_supertype_symbols \<or>
     visible (ts_symbol_metadata ! t) \<and> named (ts_symbol_metadata ! t)"

lemma supertype_metadata:
  assumes "s < SYMBOL_COUNT + ALIAS_COUNT"
  shows "supertype (ts_symbol_metadata ! s) \<longleftrightarrow> s \<in> set ts_supertype_symbols"
proof -
  have "[0..<350] = 0 # 1 # [2..<350]" by (simp add: upt_conv_Cons [of 0] upt_conv_Cons [of "Suc 0"] numeral_2_eq_2)
  then have "list_all (\<lambda>s. supertype (ts_symbol_metadata ! s) \<longleftrightarrow> s \<in> set ts_supertype_symbols) [0..<350]"
    unfolding ts_supertype_symbols_def
    by (simp add: upt_rec_numeral symbol_facts symbol_metadata_def symbol_number_defs del: One_nat_def)
  then show ?thesis using assms by (simp add: list_all_iff SYMBOL_COUNT_def ALIAS_COUNT_def)
qed

lemma supertypes_hidden:
  "list_all (\<lambda>s. \<not> visible (ts_symbol_metadata ! s)) ts_supertype_symbols"
  unfolding ts_supertype_symbols_def by (simp add: symbol_facts symbol_metadata_def symbol_number_defs)

lemma subtypes_presented: "list_all presented ts_supertype_map_entries"
proof -
  have "list_all presented (concat (map snd supertype_map_entry_rows))"
    unfolding supertype_map_entry_rows_def presented_def ts_supertype_symbols_def
    by (simp add: symbol_facts symbol_metadata_def symbol_number_defs del: One_nat_def)
  then show ?thesis
    unfolding ts_supertype_map_entries_def designated_runs_concat(1) [OF supertype_entry_runs] .
qed

lemma supertype_slices_fit:
  "list_all (\<lambda>s. let sl = ts_supertype_map_slices ! s in
     0 < slice_length sl \<and> slice_index sl + slice_length sl \<le> 58) ts_supertype_symbols"
  unfolding ts_supertype_symbols_def by (simp add: supertype_slices map_slice_def)

lemma supertype_reduction:
  assumes "i < length ts_parse_actions" "actions_at i = Some acts" "Reduce s c prec p \<in> set acts"
    "s \<in> set ts_supertype_symbols"
  shows "c = 1"
proof -
  from header_action_row [OF assms(1,2)] obtain count reusable
    where "(i, Entry count reusable # map Action acts) \<in> set parse_action_rows" by blast
  with parse_action_rows_single have "list_all single_child (map Action acts)" by (auto simp: list_all_iff)
  with assms(3,4) show ?thesis by (force simp: list_all_iff)
qed

section \<open>Properties\<close>

text \<open>C39: The tables agree on the supertypes of the grammar. A symbol is marked as a supertype in
  \<open>ts_symbol_metadata\<close> exactly when it is in \<open>ts_supertype_symbols\<close>. A supertype is hidden; its subtypes are
  a non-empty slice inside \<open>ts_supertype_map_entries\<close>, and each of them is a visible and named symbol or
  again a supertype; and every reduction of the parser to a supertype has exactly one child, so that the
  node of a supertype is shown as that child.\<close>

theorem supertypes_consistent:
  assumes "s < SYMBOL_COUNT + ALIAS_COUNT"
  shows "(supertype (ts_symbol_metadata ! s) \<longleftrightarrow> s \<in> set ts_supertype_symbols) \<and>
    (s \<in> set ts_supertype_symbols \<longrightarrow>
      \<not> visible (ts_symbol_metadata ! s) \<and>
      length (subtypes s) = slice_length (ts_supertype_map_slices ! s) \<and> subtypes s \<noteq> [] \<and>
      (\<forall>t\<in>set (subtypes s). t \<in> set ts_supertype_symbols \<or>
         visible (ts_symbol_metadata ! t) \<and> named (ts_symbol_metadata ! t)) \<and>
      (\<forall>i acts c prec p. i < length ts_parse_actions \<longrightarrow> actions_at i = Some acts \<longrightarrow>
         Reduce s c prec p \<in> set acts \<longrightarrow> c = 1))"
proof (intro conjI impI)
  assume s: "s \<in> set ts_supertype_symbols"
  let ?sl = "ts_supertype_map_slices ! s"
  have "length ts_supertype_map_entries = 58"
    unfolding ts_supertype_map_entries_def by (rule designated_runs_concat(2) [OF supertype_entry_runs])
  with supertype_slices_fit s
  have len: "0 < slice_length ?sl" "length (subtypes s) = slice_length ?sl"
    by (auto simp: list_all_iff Let_def subtypes_def)
  then show "length (subtypes s) = slice_length ?sl" "subtypes s \<noteq> []" by auto
  show "\<not> visible (ts_symbol_metadata ! s)" using supertypes_hidden s by (simp add: list_all_iff)
  have "set (subtypes s) \<subseteq> set ts_supertype_map_entries"
    by (auto simp: subtypes_def Let_def dest: in_set_takeD in_set_dropD)
  then show "\<forall>t\<in>set (subtypes s). t \<in> set ts_supertype_symbols \<or>
      visible (ts_symbol_metadata ! t) \<and> named (ts_symbol_metadata ! t)"
    using subtypes_presented by (auto simp: list_all_iff presented_def)
  show "\<forall>i acts c prec p. i < length ts_parse_actions \<longrightarrow> actions_at i = Some acts \<longrightarrow>
      Reduce s c prec p \<in> set acts \<longrightarrow> c = 1"
    using supertype_reduction s by blast
qed (rule supertype_metadata [OF assms])

theorem supertypes_consistent_witness:
  "supertype (ts_symbol_metadata ! sym_pattern) \<and> \<not> visible (ts_symbol_metadata ! sym_pattern) \<and>
   length (subtypes sym_pattern) = 6"
proof -
  have "sym_pattern < SYMBOL_COUNT + ALIAS_COUNT" "sym_pattern \<in> set ts_supertype_symbols"
    by (simp_all add: sym_pattern_def SYMBOL_COUNT_def ALIAS_COUNT_def ts_supertype_symbols_def)
  with supertypes_consistent [of sym_pattern] show ?thesis by (simp add: supertype_slices map_slice_def)
qed

end
