(* ===== verification/Mojo_Table_Macros.thy ===== *)
theory Mojo_Table_Macros
  imports Main
begin

text \<open>
  The macros of \<^verbatim>\<open>tree_sitter/parser.h\<close> with which the rows of \<open>ts_parse_table\<close> are written. Both are
  the identity; they tell an index of \<open>ts_parse_actions\<close> from the number of a parse state.
\<close>

section \<open>Macros\<close>

definition ACTIONS :: "nat \<Rightarrow> nat" where "ACTIONS n = n"
definition STATE :: "nat \<Rightarrow> nat" where "STATE n = n"

end
