(* ===== verification/Mojo_Parse_Rows_0.thy ===== *)
theory Mojo_Parse_Rows_0
  imports Mojo_Grammar Mojo_Table_Macros
begin

text \<open>
  The rows of \<open>ts_parse_table\<close> (\<^verbatim>\<open>grammars/tree-sitter-mojo/src/parser.c\<close>) for the parse states from
  0 to 149: for a symbol, the group of actions in \<open>ts_parse_actions\<close> for a token and the next state
  for a nonterminal. Definitions only, one for each state.
\<close>

section \<open>Rows\<close>

definition parse_table_0 :: "(nat \<times> nat) list" where "parse_table_0 = [
    (ts_builtin_sym_end, ACTIONS 1), (sym_identifier, ACTIONS 1), (anon_sym_SEMI, ACTIONS 1),
    (anon_sym_import, ACTIONS 1), (anon_sym_DOT, ACTIONS 1), (anon_sym_from, ACTIONS 1),
    (anon_sym___future__tok, ACTIONS 1), (anon_sym_LPAREN, ACTIONS 1),
    (anon_sym_RPAREN, ACTIONS 1), (anon_sym_COMMA, ACTIONS 1), (anon_sym_as, ACTIONS 1),
    (anon_sym_STAR, ACTIONS 1), (anon_sym_print, ACTIONS 1), (anon_sym_GT_GT, ACTIONS 1),
    (anon_sym_comptime, ACTIONS 1), (anon_sym_assert, ACTIONS 1),
    (anon_sym___comptime_assert, ACTIONS 1), (anon_sym_COLON_EQ, ACTIONS 1),
    (anon_sym_return, ACTIONS 1), (anon_sym_del, ACTIONS 1), (anon_sym_raise, ACTIONS 1),
    (anon_sym_pass, ACTIONS 1), (anon_sym_break, ACTIONS 1), (anon_sym_continue, ACTIONS 1),
    (anon_sym___extension, ACTIONS 1), (anon_sym_COLON, ACTIONS 1),
    (anon_sym___mlir_region, ACTIONS 1), (anon_sym_if, ACTIONS 1), (anon_sym_elif, ACTIONS 1),
    (anon_sym_else, ACTIONS 1), (anon_sym_match, ACTIONS 1), (anon_sym_case, ACTIONS 1),
    (anon_sym_async, ACTIONS 1), (anon_sym_for, ACTIONS 1), (anon_sym_in, ACTIONS 1),
    (anon_sym_while, ACTIONS 1), (anon_sym_try, ACTIONS 1), (anon_sym_except, ACTIONS 1),
    (anon_sym_finally, ACTIONS 1), (anon_sym_with, ACTIONS 1), (anon_sym_def, ACTIONS 1),
    (anon_sym_fn, ACTIONS 1), (anon_sym_LBRACK, ACTIONS 1), (anon_sym_RBRACK, ACTIONS 1),
    (anon_sym_DASH_GT, ACTIONS 1), (anon_sym_LBRACE, ACTIONS 1), (anon_sym_RBRACE, ACTIONS 1),
    (anon_sym_raises, ACTIONS 1), (anon_sym_capturing, ACTIONS 1),
    (anon_sym_escaping, ACTIONS 1), (anon_sym_thin, ACTIONS 1), (anon_sym_abi, ACTIONS 1),
    (anon_sym__tok, ACTIONS 1), (anon_sym_STAR_STAR, ACTIONS 1), (anon_sym_global, ACTIONS 1),
    (anon_sym_nonlocal, ACTIONS 1), (anon_sym_exec, ACTIONS 1), (anon_sym_type, ACTIONS 1),
    (anon_sym_EQ, ACTIONS 1), (anon_sym_class, ACTIONS 1), (anon_sym_struct, ACTIONS 1),
    (anon_sym_mut, ACTIONS 1), (anon_sym_out, ACTIONS 1), (anon_sym_SLASH_SLASH, ACTIONS 1),
    (anon_sym_trait, ACTIONS 1), (anon_sym_inferred, ACTIONS 1),
    (anon_sym_except_STAR, ACTIONS 1), (anon_sym_AT, ACTIONS 1), (anon_sym_DASH, ACTIONS 1),
    (anon_sym_PIPE, ACTIONS 1), (anon_sym_PLUS, ACTIONS 1), (anon_sym_ref, ACTIONS 1),
    (anon_sym_borrowed, ACTIONS 1), (anon_sym_inout, ACTIONS 1), (anon_sym_owned, ACTIONS 1),
    (anon_sym_read, ACTIONS 1), (anon_sym_var, ACTIONS 1), (anon_sym_deinit, ACTIONS 1),
    (anon_sym_unified, ACTIONS 1), (anon_sym_where, ACTIONS 1), (anon_sym_self, ACTIONS 1),
    (anon_sym_CARET, ACTIONS 1), (anon_sym_not, ACTIONS 1), (anon_sym_and, ACTIONS 1),
    (anon_sym_or, ACTIONS 1), (anon_sym_SLASH, ACTIONS 1), (anon_sym_PERCENT, ACTIONS 1),
    (anon_sym_AMP, ACTIONS 1), (anon_sym_LT_LT, ACTIONS 1), (anon_sym_TILDE, ACTIONS 1),
    (anon_sym_is, ACTIONS 1), (anon_sym_LT, ACTIONS 1), (anon_sym_LT_EQ, ACTIONS 1),
    (anon_sym_EQ_EQ, ACTIONS 1), (anon_sym_BANG_EQ, ACTIONS 1), (anon_sym_GT_EQ, ACTIONS 1),
    (anon_sym_GT, ACTIONS 1), (anon_sym_LT_GT, ACTIONS 1), (anon_sym_lambda, ACTIONS 1),
    (anon_sym_PLUS_EQ, ACTIONS 1), (anon_sym_DASH_EQ, ACTIONS 1), (anon_sym_STAR_EQ, ACTIONS 1),
    (anon_sym_SLASH_EQ, ACTIONS 1), (anon_sym_AT_EQ, ACTIONS 1),
    (anon_sym_SLASH_SLASH_EQ, ACTIONS 1), (anon_sym_PERCENT_EQ, ACTIONS 1),
    (anon_sym_STAR_STAR_EQ, ACTIONS 1), (anon_sym_GT_GT_EQ, ACTIONS 1),
    (anon_sym_LT_LT_EQ, ACTIONS 1), (anon_sym_AMP_EQ, ACTIONS 1), (anon_sym_CARET_EQ, ACTIONS 1),
    (anon_sym_PIPE_EQ, ACTIONS 1), (anon_sym_yield, ACTIONS 1), (sym_ellipsis, ACTIONS 1),
    (anon_sym___mlir_type, ACTIONS 1), (sym_escape_sequence, ACTIONS 1),
    (anon_sym_BSLASH, ACTIONS 1), (sym_type_conversion, ACTIONS 1), (sym_integer, ACTIONS 1),
    (sym_float, ACTIONS 1), (anon_sym_await, ACTIONS 1), (sym_true, ACTIONS 1),
    (sym_false, ACTIONS 1), (sym_none, ACTIONS 1), (sym_comment, ACTIONS 3),
    (sym_line_continuation, ACTIONS 5), (sym__newline, ACTIONS 1), (sym__indent, ACTIONS 1),
    (sym__dedent, ACTIONS 1), (sym_string_start, ACTIONS 1), (sym__string_content, ACTIONS 1),
    (sym_escape_interpolation, ACTIONS 1), (sym_string_end, ACTIONS 1),
    (sym__mlir_backtick, ACTIONS 1), (sym__mlir_ident, ACTIONS 1), (sym__mlir_number, ACTIONS 1),
    (sym_mlir_punctuation, ACTIONS 1)]"

definition parse_table_1 :: "(nat \<times> nat) list" where "parse_table_1 = [
    (sym_module, STATE 12494), (sym__statement, STATE 921), (sym__simple_statements, STATE 921),
    (sym_import_statement, STATE 12239), (sym_future_import_statement, STATE 12239),
    (sym_import_from_statement, STATE 12239), (sym_print_statement, STATE 12239),
    (sym_assert_statement, STATE 12239), (sym_comptime_assert_statement, STATE 12239),
    (sym_expression_statement, STATE 12239), (sym_tuple_expression, STATE 12425),
    (sym_named_expression, STATE 7969), (sym__named_expression_lhs, STATE 12752),
    (sym_return_statement, STATE 12239), (sym_delete_statement, STATE 12239),
    (sym_raise_statement, STATE 12239), (sym_pass_statement, STATE 12239),
    (sym_break_statement, STATE 12239), (sym_continue_statement, STATE 12239),
    (sym_extension_definition, STATE 921), (sym_mlir_region, STATE 921),
    (sym_comptime_statement, STATE 921), (sym_if_statement, STATE 921),
    (sym_match_statement, STATE 921), (sym_for_statement, STATE 921),
    (sym_while_statement, STATE 921), (sym_try_statement, STATE 921),
    (sym_with_statement, STATE 921), (sym_function_definition, STATE 921),
    (sym_global_statement, STATE 12239), (sym_nonlocal_statement, STATE 12239),
    (sym_exec_statement, STATE 12239), (sym_type_alias_statement, STATE 12239),
    (sym_parameterized_alias_statement, STATE 12239), (sym_class_definition, STATE 921),
    (sym_trait_definition, STATE 921), (sym_decorated_definition, STATE 921),
    (sym_decorator, STATE 3668), (sym_pattern, STATE 8086), (sym_tuple_pattern, STATE 8101),
    (sym_list_pattern, STATE 8101), (sym_list_splat_pattern, STATE 6819),
    (sym_as_pattern, STATE 7969), (sym_expression, STATE 9883),
    (sym_primary_expression, STATE 7326), (sym_comptime_expression, STATE 7017),
    (sym_transfer_expression, STATE 7017), (sym_not_operator, STATE 7969),
    (sym_boolean_operator, STATE 7969), (sym_binary_operator, STATE 7017),
    (sym_unary_operator, STATE 7017), (sym_comparison_operator, STATE 7969),
    (sym_lambda, STATE 7969), (sym_assignment, STATE 12425),
    (sym_augmented_assignment, STATE 12425), (sym_pattern_list, STATE 8578),
    (sym_yield, STATE 12425), (sym_attribute, STATE 6836), (sym_subscript, STATE 6838),
    (sym_call, STATE 6845), (sym_mlir_type, STATE 7017), (sym_list, STATE 7017),
    (sym_set, STATE 7017), (sym_tuple, STATE 7017), (sym_dictionary, STATE 7017),
    (sym_struct_literal, STATE 7017), (sym_list_comprehension, STATE 7017),
    (sym_dictionary_comprehension, STATE 7017), (sym_set_comprehension, STATE 7017),
    (sym_generator_expression, STATE 7017), (sym_parenthesized_expression, STATE 7017),
    (sym_conditional_expression, STATE 7969), (sym_concatenated_string, STATE 7017),
    (sym_string, STATE 6751), (sym_await, STATE 7017), (aux_sym_module_repeat1, STATE 921),
    (aux_sym_decorated_definition_repeat1, STATE 3668), (ts_builtin_sym_end, ACTIONS 7),
    (sym_identifier, ACTIONS 9), (anon_sym_import, ACTIONS 11), (anon_sym_from, ACTIONS 13),
    (anon_sym_LPAREN, ACTIONS 15), (anon_sym_STAR, ACTIONS 17), (anon_sym_print, ACTIONS 19),
    (anon_sym_comptime, ACTIONS 21), (anon_sym_assert, ACTIONS 23),
    (anon_sym___comptime_assert, ACTIONS 25), (anon_sym_return, ACTIONS 27),
    (anon_sym_del, ACTIONS 29), (anon_sym_raise, ACTIONS 31), (anon_sym_pass, ACTIONS 33),
    (anon_sym_break, ACTIONS 35), (anon_sym_continue, ACTIONS 37),
    (anon_sym___extension, ACTIONS 39), (anon_sym___mlir_region, ACTIONS 41),
    (anon_sym_if, ACTIONS 43), (anon_sym_match, ACTIONS 45), (anon_sym_async, ACTIONS 47),
    (anon_sym_for, ACTIONS 49), (anon_sym_while, ACTIONS 51), (anon_sym_try, ACTIONS 53),
    (anon_sym_with, ACTIONS 55), (anon_sym_def, ACTIONS 57), (anon_sym_fn, ACTIONS 57),
    (anon_sym_LBRACK, ACTIONS 59), (anon_sym_LBRACE, ACTIONS 61), (anon_sym_global, ACTIONS 63),
    (anon_sym_nonlocal, ACTIONS 65), (anon_sym_exec, ACTIONS 67), (anon_sym_type, ACTIONS 69),
    (anon_sym_class, ACTIONS 71), (anon_sym_struct, ACTIONS 71), (anon_sym_mut, ACTIONS 73),
    (anon_sym_out, ACTIONS 73), (anon_sym_trait, ACTIONS 75), (anon_sym_AT, ACTIONS 77),
    (anon_sym_DASH, ACTIONS 79), (anon_sym_PLUS, ACTIONS 79), (anon_sym_ref, ACTIONS 81),
    (anon_sym_var, ACTIONS 81), (anon_sym_not, ACTIONS 83), (anon_sym_TILDE, ACTIONS 79),
    (anon_sym_lambda, ACTIONS 85), (anon_sym_yield, ACTIONS 87), (sym_ellipsis, ACTIONS 89),
    (anon_sym___mlir_type, ACTIONS 91), (sym_integer, ACTIONS 93), (sym_float, ACTIONS 89),
    (anon_sym_await, ACTIONS 95), (sym_true, ACTIONS 93), (sym_false, ACTIONS 93),
    (sym_none, ACTIONS 93), (sym_comment, ACTIONS 3), (sym_line_continuation, ACTIONS 3),
    (sym_string_start, ACTIONS 97)]"

definition parse_table_2 :: "(nat \<times> nat) list" where "parse_table_2 = [
    (sym__statement, STATE 927), (sym__simple_statements, STATE 927),
    (sym_import_statement, STATE 11814), (sym_future_import_statement, STATE 11814),
    (sym_import_from_statement, STATE 11814), (sym_print_statement, STATE 11814),
    (sym_assert_statement, STATE 11814), (sym_comptime_assert_statement, STATE 11814),
    (sym_expression_statement, STATE 11814), (sym_tuple_expression, STATE 12425),
    (sym_named_expression, STATE 7969), (sym__named_expression_lhs, STATE 12752),
    (sym_return_statement, STATE 11814), (sym_delete_statement, STATE 11814),
    (sym_raise_statement, STATE 11814), (sym_pass_statement, STATE 11814),
    (sym_break_statement, STATE 11814), (sym_continue_statement, STATE 11814),
    (sym_extension_definition, STATE 927), (sym_mlir_region, STATE 927),
    (sym_comptime_statement, STATE 927), (sym_if_statement, STATE 927),
    (sym_match_statement, STATE 927), (sym_for_statement, STATE 927),
    (sym_while_statement, STATE 927), (sym_try_statement, STATE 927),
    (sym_with_statement, STATE 927), (sym_function_definition, STATE 927),
    (sym_global_statement, STATE 11814), (sym_nonlocal_statement, STATE 11814),
    (sym_exec_statement, STATE 11814), (sym_type_alias_statement, STATE 11814),
    (sym_parameterized_alias_statement, STATE 11814), (sym_class_definition, STATE 927),
    (sym_trait_definition, STATE 927), (sym_decorated_definition, STATE 927),
    (sym_decorator, STATE 3670), (sym_block, STATE 4831), (sym_pattern, STATE 8086),
    (sym_tuple_pattern, STATE 8101), (sym_list_pattern, STATE 8101),
    (sym_list_splat_pattern, STATE 6819), (sym_as_pattern, STATE 7969),
    (sym_expression, STATE 9883), (sym_primary_expression, STATE 7326),
    (sym_comptime_expression, STATE 7017), (sym_transfer_expression, STATE 7017),
    (sym_not_operator, STATE 7969), (sym_boolean_operator, STATE 7969),
    (sym_binary_operator, STATE 7017), (sym_unary_operator, STATE 7017),
    (sym_comparison_operator, STATE 7969), (sym_lambda, STATE 7969),
    (sym_assignment, STATE 12425), (sym_augmented_assignment, STATE 12425),
    (sym_pattern_list, STATE 8578), (sym_yield, STATE 12425), (sym_attribute, STATE 6836),
    (sym_subscript, STATE 6838), (sym_call, STATE 6845), (sym_mlir_type, STATE 7017),
    (sym_list, STATE 7017), (sym_set, STATE 7017), (sym_tuple, STATE 7017),
    (sym_dictionary, STATE 7017), (sym_struct_literal, STATE 7017),
    (sym_list_comprehension, STATE 7017), (sym_dictionary_comprehension, STATE 7017),
    (sym_set_comprehension, STATE 7017), (sym_generator_expression, STATE 7017),
    (sym_parenthesized_expression, STATE 7017), (sym_conditional_expression, STATE 7969),
    (sym_concatenated_string, STATE 7017), (sym_string, STATE 6751), (sym_await, STATE 7017),
    (aux_sym_module_repeat1, STATE 927), (aux_sym_decorated_definition_repeat1, STATE 3670),
    (sym_identifier, ACTIONS 9), (anon_sym_import, ACTIONS 11), (anon_sym_from, ACTIONS 13),
    (anon_sym_LPAREN, ACTIONS 15), (anon_sym_STAR, ACTIONS 17), (anon_sym_print, ACTIONS 19),
    (anon_sym_comptime, ACTIONS 99), (anon_sym_assert, ACTIONS 23),
    (anon_sym___comptime_assert, ACTIONS 25), (anon_sym_return, ACTIONS 27),
    (anon_sym_del, ACTIONS 29), (anon_sym_raise, ACTIONS 31), (anon_sym_pass, ACTIONS 33),
    (anon_sym_break, ACTIONS 35), (anon_sym_continue, ACTIONS 37),
    (anon_sym___extension, ACTIONS 101), (anon_sym___mlir_region, ACTIONS 103),
    (anon_sym_if, ACTIONS 105), (anon_sym_match, ACTIONS 107), (anon_sym_async, ACTIONS 109),
    (anon_sym_for, ACTIONS 111), (anon_sym_while, ACTIONS 113), (anon_sym_try, ACTIONS 115),
    (anon_sym_with, ACTIONS 117), (anon_sym_def, ACTIONS 119), (anon_sym_fn, ACTIONS 119),
    (anon_sym_LBRACK, ACTIONS 59), (anon_sym_LBRACE, ACTIONS 61), (anon_sym_global, ACTIONS 63),
    (anon_sym_nonlocal, ACTIONS 65), (anon_sym_exec, ACTIONS 67), (anon_sym_type, ACTIONS 69),
    (anon_sym_class, ACTIONS 121), (anon_sym_struct, ACTIONS 121), (anon_sym_mut, ACTIONS 73),
    (anon_sym_out, ACTIONS 73), (anon_sym_trait, ACTIONS 123), (anon_sym_AT, ACTIONS 77),
    (anon_sym_DASH, ACTIONS 79), (anon_sym_PLUS, ACTIONS 79), (anon_sym_ref, ACTIONS 81),
    (anon_sym_var, ACTIONS 81), (anon_sym_not, ACTIONS 83), (anon_sym_TILDE, ACTIONS 79),
    (anon_sym_lambda, ACTIONS 85), (anon_sym_yield, ACTIONS 87), (sym_ellipsis, ACTIONS 89),
    (anon_sym___mlir_type, ACTIONS 91), (sym_integer, ACTIONS 93), (sym_float, ACTIONS 89),
    (anon_sym_await, ACTIONS 95), (sym_true, ACTIONS 93), (sym_false, ACTIONS 93),
    (sym_none, ACTIONS 93), (sym_comment, ACTIONS 3), (sym_line_continuation, ACTIONS 3),
    (sym__dedent, ACTIONS 125), (sym_string_start, ACTIONS 97)]"

definition parse_table_3 :: "(nat \<times> nat) list" where "parse_table_3 = [
    (sym__statement, STATE 927), (sym__simple_statements, STATE 927),
    (sym_import_statement, STATE 11814), (sym_future_import_statement, STATE 11814),
    (sym_import_from_statement, STATE 11814), (sym_print_statement, STATE 11814),
    (sym_assert_statement, STATE 11814), (sym_comptime_assert_statement, STATE 11814),
    (sym_expression_statement, STATE 11814), (sym_tuple_expression, STATE 12425),
    (sym_named_expression, STATE 7969), (sym__named_expression_lhs, STATE 12752),
    (sym_return_statement, STATE 11814), (sym_delete_statement, STATE 11814),
    (sym_raise_statement, STATE 11814), (sym_pass_statement, STATE 11814),
    (sym_break_statement, STATE 11814), (sym_continue_statement, STATE 11814),
    (sym_extension_definition, STATE 927), (sym_mlir_region, STATE 927),
    (sym_comptime_statement, STATE 927), (sym_if_statement, STATE 927),
    (sym_match_statement, STATE 927), (sym_for_statement, STATE 927),
    (sym_while_statement, STATE 927), (sym_try_statement, STATE 927),
    (sym_with_statement, STATE 927), (sym_function_definition, STATE 927),
    (sym_global_statement, STATE 11814), (sym_nonlocal_statement, STATE 11814),
    (sym_exec_statement, STATE 11814), (sym_type_alias_statement, STATE 11814),
    (sym_parameterized_alias_statement, STATE 11814), (sym_class_definition, STATE 927),
    (sym_trait_definition, STATE 927), (sym_decorated_definition, STATE 927),
    (sym_decorator, STATE 3670), (sym_block, STATE 4443), (sym_pattern, STATE 8086),
    (sym_tuple_pattern, STATE 8101), (sym_list_pattern, STATE 8101),
    (sym_list_splat_pattern, STATE 6819), (sym_as_pattern, STATE 7969),
    (sym_expression, STATE 9883), (sym_primary_expression, STATE 7326),
    (sym_comptime_expression, STATE 7017), (sym_transfer_expression, STATE 7017),
    (sym_not_operator, STATE 7969), (sym_boolean_operator, STATE 7969),
    (sym_binary_operator, STATE 7017), (sym_unary_operator, STATE 7017),
    (sym_comparison_operator, STATE 7969), (sym_lambda, STATE 7969),
    (sym_assignment, STATE 12425), (sym_augmented_assignment, STATE 12425),
    (sym_pattern_list, STATE 8578), (sym_yield, STATE 12425), (sym_attribute, STATE 6836),
    (sym_subscript, STATE 6838), (sym_call, STATE 6845), (sym_mlir_type, STATE 7017),
    (sym_list, STATE 7017), (sym_set, STATE 7017), (sym_tuple, STATE 7017),
    (sym_dictionary, STATE 7017), (sym_struct_literal, STATE 7017),
    (sym_list_comprehension, STATE 7017), (sym_dictionary_comprehension, STATE 7017),
    (sym_set_comprehension, STATE 7017), (sym_generator_expression, STATE 7017),
    (sym_parenthesized_expression, STATE 7017), (sym_conditional_expression, STATE 7969),
    (sym_concatenated_string, STATE 7017), (sym_string, STATE 6751), (sym_await, STATE 7017),
    (aux_sym_module_repeat1, STATE 927), (aux_sym_decorated_definition_repeat1, STATE 3670),
    (sym_identifier, ACTIONS 9), (anon_sym_import, ACTIONS 11), (anon_sym_from, ACTIONS 13),
    (anon_sym_LPAREN, ACTIONS 15), (anon_sym_STAR, ACTIONS 17), (anon_sym_print, ACTIONS 19),
    (anon_sym_comptime, ACTIONS 99), (anon_sym_assert, ACTIONS 23),
    (anon_sym___comptime_assert, ACTIONS 25), (anon_sym_return, ACTIONS 27),
    (anon_sym_del, ACTIONS 29), (anon_sym_raise, ACTIONS 31), (anon_sym_pass, ACTIONS 33),
    (anon_sym_break, ACTIONS 35), (anon_sym_continue, ACTIONS 37),
    (anon_sym___extension, ACTIONS 101), (anon_sym___mlir_region, ACTIONS 103),
    (anon_sym_if, ACTIONS 105), (anon_sym_match, ACTIONS 107), (anon_sym_async, ACTIONS 109),
    (anon_sym_for, ACTIONS 111), (anon_sym_while, ACTIONS 113), (anon_sym_try, ACTIONS 115),
    (anon_sym_with, ACTIONS 117), (anon_sym_def, ACTIONS 119), (anon_sym_fn, ACTIONS 119),
    (anon_sym_LBRACK, ACTIONS 59), (anon_sym_LBRACE, ACTIONS 61), (anon_sym_global, ACTIONS 63),
    (anon_sym_nonlocal, ACTIONS 65), (anon_sym_exec, ACTIONS 67), (anon_sym_type, ACTIONS 69),
    (anon_sym_class, ACTIONS 121), (anon_sym_struct, ACTIONS 121), (anon_sym_mut, ACTIONS 73),
    (anon_sym_out, ACTIONS 73), (anon_sym_trait, ACTIONS 123), (anon_sym_AT, ACTIONS 77),
    (anon_sym_DASH, ACTIONS 79), (anon_sym_PLUS, ACTIONS 79), (anon_sym_ref, ACTIONS 81),
    (anon_sym_var, ACTIONS 81), (anon_sym_not, ACTIONS 83), (anon_sym_TILDE, ACTIONS 79),
    (anon_sym_lambda, ACTIONS 85), (anon_sym_yield, ACTIONS 87), (sym_ellipsis, ACTIONS 89),
    (anon_sym___mlir_type, ACTIONS 91), (sym_integer, ACTIONS 93), (sym_float, ACTIONS 89),
    (anon_sym_await, ACTIONS 95), (sym_true, ACTIONS 93), (sym_false, ACTIONS 93),
    (sym_none, ACTIONS 93), (sym_comment, ACTIONS 3), (sym_line_continuation, ACTIONS 3),
    (sym__dedent, ACTIONS 125), (sym_string_start, ACTIONS 97)]"

definition parse_table_4 :: "(nat \<times> nat) list" where "parse_table_4 = [
    (sym__statement, STATE 922), (sym__simple_statements, STATE 922),
    (sym_import_statement, STATE 11814), (sym_future_import_statement, STATE 11814),
    (sym_import_from_statement, STATE 11814), (sym_print_statement, STATE 11814),
    (sym_assert_statement, STATE 11814), (sym_comptime_assert_statement, STATE 11814),
    (sym_expression_statement, STATE 11814), (sym_tuple_expression, STATE 12425),
    (sym_named_expression, STATE 7969), (sym__named_expression_lhs, STATE 12752),
    (sym_return_statement, STATE 11814), (sym_delete_statement, STATE 11814),
    (sym_raise_statement, STATE 11814), (sym_pass_statement, STATE 11814),
    (sym_break_statement, STATE 11814), (sym_continue_statement, STATE 11814),
    (sym_extension_definition, STATE 922), (sym_mlir_region, STATE 922),
    (sym_comptime_statement, STATE 922), (sym_if_statement, STATE 922),
    (sym_match_statement, STATE 922), (sym_for_statement, STATE 922),
    (sym_while_statement, STATE 922), (sym_try_statement, STATE 922),
    (sym_with_statement, STATE 922), (sym_function_definition, STATE 922),
    (sym_global_statement, STATE 11814), (sym_nonlocal_statement, STATE 11814),
    (sym_exec_statement, STATE 11814), (sym_type_alias_statement, STATE 11814),
    (sym_parameterized_alias_statement, STATE 11814), (sym_class_definition, STATE 922),
    (sym_trait_definition, STATE 922), (sym_decorated_definition, STATE 922),
    (sym_decorator, STATE 3670), (sym_block, STATE 9691), (sym_pattern, STATE 8086),
    (sym_tuple_pattern, STATE 8101), (sym_list_pattern, STATE 8101),
    (sym_list_splat_pattern, STATE 6819), (sym_as_pattern, STATE 7969),
    (sym_expression, STATE 9883), (sym_primary_expression, STATE 7326),
    (sym_comptime_expression, STATE 7017), (sym_transfer_expression, STATE 7017),
    (sym_not_operator, STATE 7969), (sym_boolean_operator, STATE 7969),
    (sym_binary_operator, STATE 7017), (sym_unary_operator, STATE 7017),
    (sym_comparison_operator, STATE 7969), (sym_lambda, STATE 7969),
    (sym_assignment, STATE 12425), (sym_augmented_assignment, STATE 12425),
    (sym_pattern_list, STATE 8578), (sym_yield, STATE 12425), (sym_attribute, STATE 6836),
    (sym_subscript, STATE 6838), (sym_call, STATE 6845), (sym_mlir_type, STATE 7017),
    (sym_list, STATE 7017), (sym_set, STATE 7017), (sym_tuple, STATE 7017),
    (sym_dictionary, STATE 7017), (sym_struct_literal, STATE 7017),
    (sym_list_comprehension, STATE 7017), (sym_dictionary_comprehension, STATE 7017),
    (sym_set_comprehension, STATE 7017), (sym_generator_expression, STATE 7017),
    (sym_parenthesized_expression, STATE 7017), (sym_conditional_expression, STATE 7969),
    (sym_concatenated_string, STATE 7017), (sym_string, STATE 6751), (sym_await, STATE 7017),
    (aux_sym_module_repeat1, STATE 922), (aux_sym_decorated_definition_repeat1, STATE 3670),
    (sym_identifier, ACTIONS 9), (anon_sym_import, ACTIONS 11), (anon_sym_from, ACTIONS 13),
    (anon_sym_LPAREN, ACTIONS 15), (anon_sym_STAR, ACTIONS 17), (anon_sym_print, ACTIONS 19),
    (anon_sym_comptime, ACTIONS 99), (anon_sym_assert, ACTIONS 23),
    (anon_sym___comptime_assert, ACTIONS 25), (anon_sym_return, ACTIONS 27),
    (anon_sym_del, ACTIONS 29), (anon_sym_raise, ACTIONS 31), (anon_sym_pass, ACTIONS 33),
    (anon_sym_break, ACTIONS 35), (anon_sym_continue, ACTIONS 37),
    (anon_sym___extension, ACTIONS 101), (anon_sym___mlir_region, ACTIONS 103),
    (anon_sym_if, ACTIONS 105), (anon_sym_match, ACTIONS 107), (anon_sym_async, ACTIONS 109),
    (anon_sym_for, ACTIONS 111), (anon_sym_while, ACTIONS 113), (anon_sym_try, ACTIONS 115),
    (anon_sym_with, ACTIONS 117), (anon_sym_def, ACTIONS 119), (anon_sym_fn, ACTIONS 119),
    (anon_sym_LBRACK, ACTIONS 59), (anon_sym_LBRACE, ACTIONS 61), (anon_sym_global, ACTIONS 63),
    (anon_sym_nonlocal, ACTIONS 65), (anon_sym_exec, ACTIONS 67), (anon_sym_type, ACTIONS 69),
    (anon_sym_class, ACTIONS 121), (anon_sym_struct, ACTIONS 121), (anon_sym_mut, ACTIONS 73),
    (anon_sym_out, ACTIONS 73), (anon_sym_trait, ACTIONS 123), (anon_sym_AT, ACTIONS 77),
    (anon_sym_DASH, ACTIONS 79), (anon_sym_PLUS, ACTIONS 79), (anon_sym_ref, ACTIONS 81),
    (anon_sym_var, ACTIONS 81), (anon_sym_not, ACTIONS 83), (anon_sym_TILDE, ACTIONS 79),
    (anon_sym_lambda, ACTIONS 85), (anon_sym_yield, ACTIONS 87), (sym_ellipsis, ACTIONS 89),
    (anon_sym___mlir_type, ACTIONS 91), (sym_integer, ACTIONS 93), (sym_float, ACTIONS 89),
    (anon_sym_await, ACTIONS 95), (sym_true, ACTIONS 93), (sym_false, ACTIONS 93),
    (sym_none, ACTIONS 93), (sym_comment, ACTIONS 3), (sym_line_continuation, ACTIONS 3),
    (sym__dedent, ACTIONS 127), (sym_string_start, ACTIONS 97)]"

definition parse_table_5 :: "(nat \<times> nat) list" where "parse_table_5 = [
    (sym__statement, STATE 925), (sym__simple_statements, STATE 925),
    (sym_import_statement, STATE 11814), (sym_future_import_statement, STATE 11814),
    (sym_import_from_statement, STATE 11814), (sym_print_statement, STATE 11814),
    (sym_assert_statement, STATE 11814), (sym_comptime_assert_statement, STATE 11814),
    (sym_expression_statement, STATE 11814), (sym_tuple_expression, STATE 12425),
    (sym_named_expression, STATE 7969), (sym__named_expression_lhs, STATE 12752),
    (sym_return_statement, STATE 11814), (sym_delete_statement, STATE 11814),
    (sym_raise_statement, STATE 11814), (sym_pass_statement, STATE 11814),
    (sym_break_statement, STATE 11814), (sym_continue_statement, STATE 11814),
    (sym_extension_definition, STATE 925), (sym_mlir_region, STATE 925),
    (sym_comptime_statement, STATE 925), (sym_if_statement, STATE 925),
    (sym_match_statement, STATE 925), (sym_for_statement, STATE 925),
    (sym_while_statement, STATE 925), (sym_try_statement, STATE 925),
    (sym_with_statement, STATE 925), (sym_function_definition, STATE 925),
    (sym_global_statement, STATE 11814), (sym_nonlocal_statement, STATE 11814),
    (sym_exec_statement, STATE 11814), (sym_type_alias_statement, STATE 11814),
    (sym_parameterized_alias_statement, STATE 11814), (sym_class_definition, STATE 925),
    (sym_trait_definition, STATE 925), (sym_decorated_definition, STATE 925),
    (sym_decorator, STATE 3670), (sym_block, STATE 5514), (sym_pattern, STATE 8086),
    (sym_tuple_pattern, STATE 8101), (sym_list_pattern, STATE 8101),
    (sym_list_splat_pattern, STATE 6819), (sym_as_pattern, STATE 7969),
    (sym_expression, STATE 9883), (sym_primary_expression, STATE 7326),
    (sym_comptime_expression, STATE 7017), (sym_transfer_expression, STATE 7017),
    (sym_not_operator, STATE 7969), (sym_boolean_operator, STATE 7969),
    (sym_binary_operator, STATE 7017), (sym_unary_operator, STATE 7017),
    (sym_comparison_operator, STATE 7969), (sym_lambda, STATE 7969),
    (sym_assignment, STATE 12425), (sym_augmented_assignment, STATE 12425),
    (sym_pattern_list, STATE 8578), (sym_yield, STATE 12425), (sym_attribute, STATE 6836),
    (sym_subscript, STATE 6838), (sym_call, STATE 6845), (sym_mlir_type, STATE 7017),
    (sym_list, STATE 7017), (sym_set, STATE 7017), (sym_tuple, STATE 7017),
    (sym_dictionary, STATE 7017), (sym_struct_literal, STATE 7017),
    (sym_list_comprehension, STATE 7017), (sym_dictionary_comprehension, STATE 7017),
    (sym_set_comprehension, STATE 7017), (sym_generator_expression, STATE 7017),
    (sym_parenthesized_expression, STATE 7017), (sym_conditional_expression, STATE 7969),
    (sym_concatenated_string, STATE 7017), (sym_string, STATE 6751), (sym_await, STATE 7017),
    (aux_sym_module_repeat1, STATE 925), (aux_sym_decorated_definition_repeat1, STATE 3670),
    (sym_identifier, ACTIONS 9), (anon_sym_import, ACTIONS 11), (anon_sym_from, ACTIONS 13),
    (anon_sym_LPAREN, ACTIONS 15), (anon_sym_STAR, ACTIONS 17), (anon_sym_print, ACTIONS 19),
    (anon_sym_comptime, ACTIONS 99), (anon_sym_assert, ACTIONS 23),
    (anon_sym___comptime_assert, ACTIONS 25), (anon_sym_return, ACTIONS 27),
    (anon_sym_del, ACTIONS 29), (anon_sym_raise, ACTIONS 31), (anon_sym_pass, ACTIONS 33),
    (anon_sym_break, ACTIONS 35), (anon_sym_continue, ACTIONS 37),
    (anon_sym___extension, ACTIONS 101), (anon_sym___mlir_region, ACTIONS 103),
    (anon_sym_if, ACTIONS 105), (anon_sym_match, ACTIONS 107), (anon_sym_async, ACTIONS 109),
    (anon_sym_for, ACTIONS 111), (anon_sym_while, ACTIONS 113), (anon_sym_try, ACTIONS 115),
    (anon_sym_with, ACTIONS 117), (anon_sym_def, ACTIONS 119), (anon_sym_fn, ACTIONS 119),
    (anon_sym_LBRACK, ACTIONS 59), (anon_sym_LBRACE, ACTIONS 61), (anon_sym_global, ACTIONS 63),
    (anon_sym_nonlocal, ACTIONS 65), (anon_sym_exec, ACTIONS 67), (anon_sym_type, ACTIONS 69),
    (anon_sym_class, ACTIONS 121), (anon_sym_struct, ACTIONS 121), (anon_sym_mut, ACTIONS 73),
    (anon_sym_out, ACTIONS 73), (anon_sym_trait, ACTIONS 123), (anon_sym_AT, ACTIONS 77),
    (anon_sym_DASH, ACTIONS 79), (anon_sym_PLUS, ACTIONS 79), (anon_sym_ref, ACTIONS 81),
    (anon_sym_var, ACTIONS 81), (anon_sym_not, ACTIONS 83), (anon_sym_TILDE, ACTIONS 79),
    (anon_sym_lambda, ACTIONS 85), (anon_sym_yield, ACTIONS 87), (sym_ellipsis, ACTIONS 89),
    (anon_sym___mlir_type, ACTIONS 91), (sym_integer, ACTIONS 93), (sym_float, ACTIONS 89),
    (anon_sym_await, ACTIONS 95), (sym_true, ACTIONS 93), (sym_false, ACTIONS 93),
    (sym_none, ACTIONS 93), (sym_comment, ACTIONS 3), (sym_line_continuation, ACTIONS 3),
    (sym__dedent, ACTIONS 129), (sym_string_start, ACTIONS 97)]"

definition parse_table_6 :: "(nat \<times> nat) list" where "parse_table_6 = [
    (sym__statement, STATE 925), (sym__simple_statements, STATE 925),
    (sym_import_statement, STATE 11814), (sym_future_import_statement, STATE 11814),
    (sym_import_from_statement, STATE 11814), (sym_print_statement, STATE 11814),
    (sym_assert_statement, STATE 11814), (sym_comptime_assert_statement, STATE 11814),
    (sym_expression_statement, STATE 11814), (sym_tuple_expression, STATE 12425),
    (sym_named_expression, STATE 7969), (sym__named_expression_lhs, STATE 12752),
    (sym_return_statement, STATE 11814), (sym_delete_statement, STATE 11814),
    (sym_raise_statement, STATE 11814), (sym_pass_statement, STATE 11814),
    (sym_break_statement, STATE 11814), (sym_continue_statement, STATE 11814),
    (sym_extension_definition, STATE 925), (sym_mlir_region, STATE 925),
    (sym_comptime_statement, STATE 925), (sym_if_statement, STATE 925),
    (sym_match_statement, STATE 925), (sym_for_statement, STATE 925),
    (sym_while_statement, STATE 925), (sym_try_statement, STATE 925),
    (sym_with_statement, STATE 925), (sym_function_definition, STATE 925),
    (sym_global_statement, STATE 11814), (sym_nonlocal_statement, STATE 11814),
    (sym_exec_statement, STATE 11814), (sym_type_alias_statement, STATE 11814),
    (sym_parameterized_alias_statement, STATE 11814), (sym_class_definition, STATE 925),
    (sym_trait_definition, STATE 925), (sym_decorated_definition, STATE 925),
    (sym_decorator, STATE 3670), (sym_block, STATE 3981), (sym_pattern, STATE 8086),
    (sym_tuple_pattern, STATE 8101), (sym_list_pattern, STATE 8101),
    (sym_list_splat_pattern, STATE 6819), (sym_as_pattern, STATE 7969),
    (sym_expression, STATE 9883), (sym_primary_expression, STATE 7326),
    (sym_comptime_expression, STATE 7017), (sym_transfer_expression, STATE 7017),
    (sym_not_operator, STATE 7969), (sym_boolean_operator, STATE 7969),
    (sym_binary_operator, STATE 7017), (sym_unary_operator, STATE 7017),
    (sym_comparison_operator, STATE 7969), (sym_lambda, STATE 7969),
    (sym_assignment, STATE 12425), (sym_augmented_assignment, STATE 12425),
    (sym_pattern_list, STATE 8578), (sym_yield, STATE 12425), (sym_attribute, STATE 6836),
    (sym_subscript, STATE 6838), (sym_call, STATE 6845), (sym_mlir_type, STATE 7017),
    (sym_list, STATE 7017), (sym_set, STATE 7017), (sym_tuple, STATE 7017),
    (sym_dictionary, STATE 7017), (sym_struct_literal, STATE 7017),
    (sym_list_comprehension, STATE 7017), (sym_dictionary_comprehension, STATE 7017),
    (sym_set_comprehension, STATE 7017), (sym_generator_expression, STATE 7017),
    (sym_parenthesized_expression, STATE 7017), (sym_conditional_expression, STATE 7969),
    (sym_concatenated_string, STATE 7017), (sym_string, STATE 6751), (sym_await, STATE 7017),
    (aux_sym_module_repeat1, STATE 925), (aux_sym_decorated_definition_repeat1, STATE 3670),
    (sym_identifier, ACTIONS 9), (anon_sym_import, ACTIONS 11), (anon_sym_from, ACTIONS 13),
    (anon_sym_LPAREN, ACTIONS 15), (anon_sym_STAR, ACTIONS 17), (anon_sym_print, ACTIONS 19),
    (anon_sym_comptime, ACTIONS 99), (anon_sym_assert, ACTIONS 23),
    (anon_sym___comptime_assert, ACTIONS 25), (anon_sym_return, ACTIONS 27),
    (anon_sym_del, ACTIONS 29), (anon_sym_raise, ACTIONS 31), (anon_sym_pass, ACTIONS 33),
    (anon_sym_break, ACTIONS 35), (anon_sym_continue, ACTIONS 37),
    (anon_sym___extension, ACTIONS 101), (anon_sym___mlir_region, ACTIONS 103),
    (anon_sym_if, ACTIONS 105), (anon_sym_match, ACTIONS 107), (anon_sym_async, ACTIONS 109),
    (anon_sym_for, ACTIONS 111), (anon_sym_while, ACTIONS 113), (anon_sym_try, ACTIONS 115),
    (anon_sym_with, ACTIONS 117), (anon_sym_def, ACTIONS 119), (anon_sym_fn, ACTIONS 119),
    (anon_sym_LBRACK, ACTIONS 59), (anon_sym_LBRACE, ACTIONS 61), (anon_sym_global, ACTIONS 63),
    (anon_sym_nonlocal, ACTIONS 65), (anon_sym_exec, ACTIONS 67), (anon_sym_type, ACTIONS 69),
    (anon_sym_class, ACTIONS 121), (anon_sym_struct, ACTIONS 121), (anon_sym_mut, ACTIONS 73),
    (anon_sym_out, ACTIONS 73), (anon_sym_trait, ACTIONS 123), (anon_sym_AT, ACTIONS 77),
    (anon_sym_DASH, ACTIONS 79), (anon_sym_PLUS, ACTIONS 79), (anon_sym_ref, ACTIONS 81),
    (anon_sym_var, ACTIONS 81), (anon_sym_not, ACTIONS 83), (anon_sym_TILDE, ACTIONS 79),
    (anon_sym_lambda, ACTIONS 85), (anon_sym_yield, ACTIONS 87), (sym_ellipsis, ACTIONS 89),
    (anon_sym___mlir_type, ACTIONS 91), (sym_integer, ACTIONS 93), (sym_float, ACTIONS 89),
    (anon_sym_await, ACTIONS 95), (sym_true, ACTIONS 93), (sym_false, ACTIONS 93),
    (sym_none, ACTIONS 93), (sym_comment, ACTIONS 3), (sym_line_continuation, ACTIONS 3),
    (sym__dedent, ACTIONS 129), (sym_string_start, ACTIONS 97)]"

definition parse_table_7 :: "(nat \<times> nat) list" where "parse_table_7 = [
    (sym__statement, STATE 925), (sym__simple_statements, STATE 925),
    (sym_import_statement, STATE 11814), (sym_future_import_statement, STATE 11814),
    (sym_import_from_statement, STATE 11814), (sym_print_statement, STATE 11814),
    (sym_assert_statement, STATE 11814), (sym_comptime_assert_statement, STATE 11814),
    (sym_expression_statement, STATE 11814), (sym_tuple_expression, STATE 12425),
    (sym_named_expression, STATE 7969), (sym__named_expression_lhs, STATE 12752),
    (sym_return_statement, STATE 11814), (sym_delete_statement, STATE 11814),
    (sym_raise_statement, STATE 11814), (sym_pass_statement, STATE 11814),
    (sym_break_statement, STATE 11814), (sym_continue_statement, STATE 11814),
    (sym_extension_definition, STATE 925), (sym_mlir_region, STATE 925),
    (sym_comptime_statement, STATE 925), (sym_if_statement, STATE 925),
    (sym_match_statement, STATE 925), (sym_for_statement, STATE 925),
    (sym_while_statement, STATE 925), (sym_try_statement, STATE 925),
    (sym_with_statement, STATE 925), (sym_function_definition, STATE 925),
    (sym_global_statement, STATE 11814), (sym_nonlocal_statement, STATE 11814),
    (sym_exec_statement, STATE 11814), (sym_type_alias_statement, STATE 11814),
    (sym_parameterized_alias_statement, STATE 11814), (sym_class_definition, STATE 925),
    (sym_trait_definition, STATE 925), (sym_decorated_definition, STATE 925),
    (sym_decorator, STATE 3670), (sym_block, STATE 4284), (sym_pattern, STATE 8086),
    (sym_tuple_pattern, STATE 8101), (sym_list_pattern, STATE 8101),
    (sym_list_splat_pattern, STATE 6819), (sym_as_pattern, STATE 7969),
    (sym_expression, STATE 9883), (sym_primary_expression, STATE 7326),
    (sym_comptime_expression, STATE 7017), (sym_transfer_expression, STATE 7017),
    (sym_not_operator, STATE 7969), (sym_boolean_operator, STATE 7969),
    (sym_binary_operator, STATE 7017), (sym_unary_operator, STATE 7017),
    (sym_comparison_operator, STATE 7969), (sym_lambda, STATE 7969),
    (sym_assignment, STATE 12425), (sym_augmented_assignment, STATE 12425),
    (sym_pattern_list, STATE 8578), (sym_yield, STATE 12425), (sym_attribute, STATE 6836),
    (sym_subscript, STATE 6838), (sym_call, STATE 6845), (sym_mlir_type, STATE 7017),
    (sym_list, STATE 7017), (sym_set, STATE 7017), (sym_tuple, STATE 7017),
    (sym_dictionary, STATE 7017), (sym_struct_literal, STATE 7017),
    (sym_list_comprehension, STATE 7017), (sym_dictionary_comprehension, STATE 7017),
    (sym_set_comprehension, STATE 7017), (sym_generator_expression, STATE 7017),
    (sym_parenthesized_expression, STATE 7017), (sym_conditional_expression, STATE 7969),
    (sym_concatenated_string, STATE 7017), (sym_string, STATE 6751), (sym_await, STATE 7017),
    (aux_sym_module_repeat1, STATE 925), (aux_sym_decorated_definition_repeat1, STATE 3670),
    (sym_identifier, ACTIONS 9), (anon_sym_import, ACTIONS 11), (anon_sym_from, ACTIONS 13),
    (anon_sym_LPAREN, ACTIONS 15), (anon_sym_STAR, ACTIONS 17), (anon_sym_print, ACTIONS 19),
    (anon_sym_comptime, ACTIONS 99), (anon_sym_assert, ACTIONS 23),
    (anon_sym___comptime_assert, ACTIONS 25), (anon_sym_return, ACTIONS 27),
    (anon_sym_del, ACTIONS 29), (anon_sym_raise, ACTIONS 31), (anon_sym_pass, ACTIONS 33),
    (anon_sym_break, ACTIONS 35), (anon_sym_continue, ACTIONS 37),
    (anon_sym___extension, ACTIONS 101), (anon_sym___mlir_region, ACTIONS 103),
    (anon_sym_if, ACTIONS 105), (anon_sym_match, ACTIONS 107), (anon_sym_async, ACTIONS 109),
    (anon_sym_for, ACTIONS 111), (anon_sym_while, ACTIONS 113), (anon_sym_try, ACTIONS 115),
    (anon_sym_with, ACTIONS 117), (anon_sym_def, ACTIONS 119), (anon_sym_fn, ACTIONS 119),
    (anon_sym_LBRACK, ACTIONS 59), (anon_sym_LBRACE, ACTIONS 61), (anon_sym_global, ACTIONS 63),
    (anon_sym_nonlocal, ACTIONS 65), (anon_sym_exec, ACTIONS 67), (anon_sym_type, ACTIONS 69),
    (anon_sym_class, ACTIONS 121), (anon_sym_struct, ACTIONS 121), (anon_sym_mut, ACTIONS 73),
    (anon_sym_out, ACTIONS 73), (anon_sym_trait, ACTIONS 123), (anon_sym_AT, ACTIONS 77),
    (anon_sym_DASH, ACTIONS 79), (anon_sym_PLUS, ACTIONS 79), (anon_sym_ref, ACTIONS 81),
    (anon_sym_var, ACTIONS 81), (anon_sym_not, ACTIONS 83), (anon_sym_TILDE, ACTIONS 79),
    (anon_sym_lambda, ACTIONS 85), (anon_sym_yield, ACTIONS 87), (sym_ellipsis, ACTIONS 89),
    (anon_sym___mlir_type, ACTIONS 91), (sym_integer, ACTIONS 93), (sym_float, ACTIONS 89),
    (anon_sym_await, ACTIONS 95), (sym_true, ACTIONS 93), (sym_false, ACTIONS 93),
    (sym_none, ACTIONS 93), (sym_comment, ACTIONS 3), (sym_line_continuation, ACTIONS 3),
    (sym__dedent, ACTIONS 129), (sym_string_start, ACTIONS 97)]"

definition parse_table_8 :: "(nat \<times> nat) list" where "parse_table_8 = [
    (sym__statement, STATE 925), (sym__simple_statements, STATE 925),
    (sym_import_statement, STATE 11814), (sym_future_import_statement, STATE 11814),
    (sym_import_from_statement, STATE 11814), (sym_print_statement, STATE 11814),
    (sym_assert_statement, STATE 11814), (sym_comptime_assert_statement, STATE 11814),
    (sym_expression_statement, STATE 11814), (sym_tuple_expression, STATE 12425),
    (sym_named_expression, STATE 7969), (sym__named_expression_lhs, STATE 12752),
    (sym_return_statement, STATE 11814), (sym_delete_statement, STATE 11814),
    (sym_raise_statement, STATE 11814), (sym_pass_statement, STATE 11814),
    (sym_break_statement, STATE 11814), (sym_continue_statement, STATE 11814),
    (sym_extension_definition, STATE 925), (sym_mlir_region, STATE 925),
    (sym_comptime_statement, STATE 925), (sym_if_statement, STATE 925),
    (sym_match_statement, STATE 925), (sym_for_statement, STATE 925),
    (sym_while_statement, STATE 925), (sym_try_statement, STATE 925),
    (sym_with_statement, STATE 925), (sym_function_definition, STATE 925),
    (sym_global_statement, STATE 11814), (sym_nonlocal_statement, STATE 11814),
    (sym_exec_statement, STATE 11814), (sym_type_alias_statement, STATE 11814),
    (sym_parameterized_alias_statement, STATE 11814), (sym_class_definition, STATE 925),
    (sym_trait_definition, STATE 925), (sym_decorated_definition, STATE 925),
    (sym_decorator, STATE 3670), (sym_block, STATE 5918), (sym_pattern, STATE 8086),
    (sym_tuple_pattern, STATE 8101), (sym_list_pattern, STATE 8101),
    (sym_list_splat_pattern, STATE 6819), (sym_as_pattern, STATE 7969),
    (sym_expression, STATE 9883), (sym_primary_expression, STATE 7326),
    (sym_comptime_expression, STATE 7017), (sym_transfer_expression, STATE 7017),
    (sym_not_operator, STATE 7969), (sym_boolean_operator, STATE 7969),
    (sym_binary_operator, STATE 7017), (sym_unary_operator, STATE 7017),
    (sym_comparison_operator, STATE 7969), (sym_lambda, STATE 7969),
    (sym_assignment, STATE 12425), (sym_augmented_assignment, STATE 12425),
    (sym_pattern_list, STATE 8578), (sym_yield, STATE 12425), (sym_attribute, STATE 6836),
    (sym_subscript, STATE 6838), (sym_call, STATE 6845), (sym_mlir_type, STATE 7017),
    (sym_list, STATE 7017), (sym_set, STATE 7017), (sym_tuple, STATE 7017),
    (sym_dictionary, STATE 7017), (sym_struct_literal, STATE 7017),
    (sym_list_comprehension, STATE 7017), (sym_dictionary_comprehension, STATE 7017),
    (sym_set_comprehension, STATE 7017), (sym_generator_expression, STATE 7017),
    (sym_parenthesized_expression, STATE 7017), (sym_conditional_expression, STATE 7969),
    (sym_concatenated_string, STATE 7017), (sym_string, STATE 6751), (sym_await, STATE 7017),
    (aux_sym_module_repeat1, STATE 925), (aux_sym_decorated_definition_repeat1, STATE 3670),
    (sym_identifier, ACTIONS 9), (anon_sym_import, ACTIONS 11), (anon_sym_from, ACTIONS 13),
    (anon_sym_LPAREN, ACTIONS 15), (anon_sym_STAR, ACTIONS 17), (anon_sym_print, ACTIONS 19),
    (anon_sym_comptime, ACTIONS 99), (anon_sym_assert, ACTIONS 23),
    (anon_sym___comptime_assert, ACTIONS 25), (anon_sym_return, ACTIONS 27),
    (anon_sym_del, ACTIONS 29), (anon_sym_raise, ACTIONS 31), (anon_sym_pass, ACTIONS 33),
    (anon_sym_break, ACTIONS 35), (anon_sym_continue, ACTIONS 37),
    (anon_sym___extension, ACTIONS 101), (anon_sym___mlir_region, ACTIONS 103),
    (anon_sym_if, ACTIONS 105), (anon_sym_match, ACTIONS 107), (anon_sym_async, ACTIONS 109),
    (anon_sym_for, ACTIONS 111), (anon_sym_while, ACTIONS 113), (anon_sym_try, ACTIONS 115),
    (anon_sym_with, ACTIONS 117), (anon_sym_def, ACTIONS 119), (anon_sym_fn, ACTIONS 119),
    (anon_sym_LBRACK, ACTIONS 59), (anon_sym_LBRACE, ACTIONS 61), (anon_sym_global, ACTIONS 63),
    (anon_sym_nonlocal, ACTIONS 65), (anon_sym_exec, ACTIONS 67), (anon_sym_type, ACTIONS 69),
    (anon_sym_class, ACTIONS 121), (anon_sym_struct, ACTIONS 121), (anon_sym_mut, ACTIONS 73),
    (anon_sym_out, ACTIONS 73), (anon_sym_trait, ACTIONS 123), (anon_sym_AT, ACTIONS 77),
    (anon_sym_DASH, ACTIONS 79), (anon_sym_PLUS, ACTIONS 79), (anon_sym_ref, ACTIONS 81),
    (anon_sym_var, ACTIONS 81), (anon_sym_not, ACTIONS 83), (anon_sym_TILDE, ACTIONS 79),
    (anon_sym_lambda, ACTIONS 85), (anon_sym_yield, ACTIONS 87), (sym_ellipsis, ACTIONS 89),
    (anon_sym___mlir_type, ACTIONS 91), (sym_integer, ACTIONS 93), (sym_float, ACTIONS 89),
    (anon_sym_await, ACTIONS 95), (sym_true, ACTIONS 93), (sym_false, ACTIONS 93),
    (sym_none, ACTIONS 93), (sym_comment, ACTIONS 3), (sym_line_continuation, ACTIONS 3),
    (sym__dedent, ACTIONS 129), (sym_string_start, ACTIONS 97)]"

definition parse_table_9 :: "(nat \<times> nat) list" where "parse_table_9 = [
    (sym__statement, STATE 925), (sym__simple_statements, STATE 925),
    (sym_import_statement, STATE 11814), (sym_future_import_statement, STATE 11814),
    (sym_import_from_statement, STATE 11814), (sym_print_statement, STATE 11814),
    (sym_assert_statement, STATE 11814), (sym_comptime_assert_statement, STATE 11814),
    (sym_expression_statement, STATE 11814), (sym_tuple_expression, STATE 12425),
    (sym_named_expression, STATE 7969), (sym__named_expression_lhs, STATE 12752),
    (sym_return_statement, STATE 11814), (sym_delete_statement, STATE 11814),
    (sym_raise_statement, STATE 11814), (sym_pass_statement, STATE 11814),
    (sym_break_statement, STATE 11814), (sym_continue_statement, STATE 11814),
    (sym_extension_definition, STATE 925), (sym_mlir_region, STATE 925),
    (sym_comptime_statement, STATE 925), (sym_if_statement, STATE 925),
    (sym_match_statement, STATE 925), (sym_for_statement, STATE 925),
    (sym_while_statement, STATE 925), (sym_try_statement, STATE 925),
    (sym_with_statement, STATE 925), (sym_function_definition, STATE 925),
    (sym_global_statement, STATE 11814), (sym_nonlocal_statement, STATE 11814),
    (sym_exec_statement, STATE 11814), (sym_type_alias_statement, STATE 11814),
    (sym_parameterized_alias_statement, STATE 11814), (sym_class_definition, STATE 925),
    (sym_trait_definition, STATE 925), (sym_decorated_definition, STATE 925),
    (sym_decorator, STATE 3670), (sym_block, STATE 6096), (sym_pattern, STATE 8086),
    (sym_tuple_pattern, STATE 8101), (sym_list_pattern, STATE 8101),
    (sym_list_splat_pattern, STATE 6819), (sym_as_pattern, STATE 7969),
    (sym_expression, STATE 9883), (sym_primary_expression, STATE 7326),
    (sym_comptime_expression, STATE 7017), (sym_transfer_expression, STATE 7017),
    (sym_not_operator, STATE 7969), (sym_boolean_operator, STATE 7969),
    (sym_binary_operator, STATE 7017), (sym_unary_operator, STATE 7017),
    (sym_comparison_operator, STATE 7969), (sym_lambda, STATE 7969),
    (sym_assignment, STATE 12425), (sym_augmented_assignment, STATE 12425),
    (sym_pattern_list, STATE 8578), (sym_yield, STATE 12425), (sym_attribute, STATE 6836),
    (sym_subscript, STATE 6838), (sym_call, STATE 6845), (sym_mlir_type, STATE 7017),
    (sym_list, STATE 7017), (sym_set, STATE 7017), (sym_tuple, STATE 7017),
    (sym_dictionary, STATE 7017), (sym_struct_literal, STATE 7017),
    (sym_list_comprehension, STATE 7017), (sym_dictionary_comprehension, STATE 7017),
    (sym_set_comprehension, STATE 7017), (sym_generator_expression, STATE 7017),
    (sym_parenthesized_expression, STATE 7017), (sym_conditional_expression, STATE 7969),
    (sym_concatenated_string, STATE 7017), (sym_string, STATE 6751), (sym_await, STATE 7017),
    (aux_sym_module_repeat1, STATE 925), (aux_sym_decorated_definition_repeat1, STATE 3670),
    (sym_identifier, ACTIONS 9), (anon_sym_import, ACTIONS 11), (anon_sym_from, ACTIONS 13),
    (anon_sym_LPAREN, ACTIONS 15), (anon_sym_STAR, ACTIONS 17), (anon_sym_print, ACTIONS 19),
    (anon_sym_comptime, ACTIONS 99), (anon_sym_assert, ACTIONS 23),
    (anon_sym___comptime_assert, ACTIONS 25), (anon_sym_return, ACTIONS 27),
    (anon_sym_del, ACTIONS 29), (anon_sym_raise, ACTIONS 31), (anon_sym_pass, ACTIONS 33),
    (anon_sym_break, ACTIONS 35), (anon_sym_continue, ACTIONS 37),
    (anon_sym___extension, ACTIONS 101), (anon_sym___mlir_region, ACTIONS 103),
    (anon_sym_if, ACTIONS 105), (anon_sym_match, ACTIONS 107), (anon_sym_async, ACTIONS 109),
    (anon_sym_for, ACTIONS 111), (anon_sym_while, ACTIONS 113), (anon_sym_try, ACTIONS 115),
    (anon_sym_with, ACTIONS 117), (anon_sym_def, ACTIONS 119), (anon_sym_fn, ACTIONS 119),
    (anon_sym_LBRACK, ACTIONS 59), (anon_sym_LBRACE, ACTIONS 61), (anon_sym_global, ACTIONS 63),
    (anon_sym_nonlocal, ACTIONS 65), (anon_sym_exec, ACTIONS 67), (anon_sym_type, ACTIONS 69),
    (anon_sym_class, ACTIONS 121), (anon_sym_struct, ACTIONS 121), (anon_sym_mut, ACTIONS 73),
    (anon_sym_out, ACTIONS 73), (anon_sym_trait, ACTIONS 123), (anon_sym_AT, ACTIONS 77),
    (anon_sym_DASH, ACTIONS 79), (anon_sym_PLUS, ACTIONS 79), (anon_sym_ref, ACTIONS 81),
    (anon_sym_var, ACTIONS 81), (anon_sym_not, ACTIONS 83), (anon_sym_TILDE, ACTIONS 79),
    (anon_sym_lambda, ACTIONS 85), (anon_sym_yield, ACTIONS 87), (sym_ellipsis, ACTIONS 89),
    (anon_sym___mlir_type, ACTIONS 91), (sym_integer, ACTIONS 93), (sym_float, ACTIONS 89),
    (anon_sym_await, ACTIONS 95), (sym_true, ACTIONS 93), (sym_false, ACTIONS 93),
    (sym_none, ACTIONS 93), (sym_comment, ACTIONS 3), (sym_line_continuation, ACTIONS 3),
    (sym__dedent, ACTIONS 129), (sym_string_start, ACTIONS 97)]"

definition parse_table_10 :: "(nat \<times> nat) list" where "parse_table_10 = [
    (sym__statement, STATE 925), (sym__simple_statements, STATE 925),
    (sym_import_statement, STATE 11814), (sym_future_import_statement, STATE 11814),
    (sym_import_from_statement, STATE 11814), (sym_print_statement, STATE 11814),
    (sym_assert_statement, STATE 11814), (sym_comptime_assert_statement, STATE 11814),
    (sym_expression_statement, STATE 11814), (sym_tuple_expression, STATE 12425),
    (sym_named_expression, STATE 7969), (sym__named_expression_lhs, STATE 12752),
    (sym_return_statement, STATE 11814), (sym_delete_statement, STATE 11814),
    (sym_raise_statement, STATE 11814), (sym_pass_statement, STATE 11814),
    (sym_break_statement, STATE 11814), (sym_continue_statement, STATE 11814),
    (sym_extension_definition, STATE 925), (sym_mlir_region, STATE 925),
    (sym_comptime_statement, STATE 925), (sym_if_statement, STATE 925),
    (sym_match_statement, STATE 925), (sym_for_statement, STATE 925),
    (sym_while_statement, STATE 925), (sym_try_statement, STATE 925),
    (sym_with_statement, STATE 925), (sym_function_definition, STATE 925),
    (sym_global_statement, STATE 11814), (sym_nonlocal_statement, STATE 11814),
    (sym_exec_statement, STATE 11814), (sym_type_alias_statement, STATE 11814),
    (sym_parameterized_alias_statement, STATE 11814), (sym_class_definition, STATE 925),
    (sym_trait_definition, STATE 925), (sym_decorated_definition, STATE 925),
    (sym_decorator, STATE 3670), (sym_block, STATE 6168), (sym_pattern, STATE 8086),
    (sym_tuple_pattern, STATE 8101), (sym_list_pattern, STATE 8101),
    (sym_list_splat_pattern, STATE 6819), (sym_as_pattern, STATE 7969),
    (sym_expression, STATE 9883), (sym_primary_expression, STATE 7326),
    (sym_comptime_expression, STATE 7017), (sym_transfer_expression, STATE 7017),
    (sym_not_operator, STATE 7969), (sym_boolean_operator, STATE 7969),
    (sym_binary_operator, STATE 7017), (sym_unary_operator, STATE 7017),
    (sym_comparison_operator, STATE 7969), (sym_lambda, STATE 7969),
    (sym_assignment, STATE 12425), (sym_augmented_assignment, STATE 12425),
    (sym_pattern_list, STATE 8578), (sym_yield, STATE 12425), (sym_attribute, STATE 6836),
    (sym_subscript, STATE 6838), (sym_call, STATE 6845), (sym_mlir_type, STATE 7017),
    (sym_list, STATE 7017), (sym_set, STATE 7017), (sym_tuple, STATE 7017),
    (sym_dictionary, STATE 7017), (sym_struct_literal, STATE 7017),
    (sym_list_comprehension, STATE 7017), (sym_dictionary_comprehension, STATE 7017),
    (sym_set_comprehension, STATE 7017), (sym_generator_expression, STATE 7017),
    (sym_parenthesized_expression, STATE 7017), (sym_conditional_expression, STATE 7969),
    (sym_concatenated_string, STATE 7017), (sym_string, STATE 6751), (sym_await, STATE 7017),
    (aux_sym_module_repeat1, STATE 925), (aux_sym_decorated_definition_repeat1, STATE 3670),
    (sym_identifier, ACTIONS 9), (anon_sym_import, ACTIONS 11), (anon_sym_from, ACTIONS 13),
    (anon_sym_LPAREN, ACTIONS 15), (anon_sym_STAR, ACTIONS 17), (anon_sym_print, ACTIONS 19),
    (anon_sym_comptime, ACTIONS 99), (anon_sym_assert, ACTIONS 23),
    (anon_sym___comptime_assert, ACTIONS 25), (anon_sym_return, ACTIONS 27),
    (anon_sym_del, ACTIONS 29), (anon_sym_raise, ACTIONS 31), (anon_sym_pass, ACTIONS 33),
    (anon_sym_break, ACTIONS 35), (anon_sym_continue, ACTIONS 37),
    (anon_sym___extension, ACTIONS 101), (anon_sym___mlir_region, ACTIONS 103),
    (anon_sym_if, ACTIONS 105), (anon_sym_match, ACTIONS 107), (anon_sym_async, ACTIONS 109),
    (anon_sym_for, ACTIONS 111), (anon_sym_while, ACTIONS 113), (anon_sym_try, ACTIONS 115),
    (anon_sym_with, ACTIONS 117), (anon_sym_def, ACTIONS 119), (anon_sym_fn, ACTIONS 119),
    (anon_sym_LBRACK, ACTIONS 59), (anon_sym_LBRACE, ACTIONS 61), (anon_sym_global, ACTIONS 63),
    (anon_sym_nonlocal, ACTIONS 65), (anon_sym_exec, ACTIONS 67), (anon_sym_type, ACTIONS 69),
    (anon_sym_class, ACTIONS 121), (anon_sym_struct, ACTIONS 121), (anon_sym_mut, ACTIONS 73),
    (anon_sym_out, ACTIONS 73), (anon_sym_trait, ACTIONS 123), (anon_sym_AT, ACTIONS 77),
    (anon_sym_DASH, ACTIONS 79), (anon_sym_PLUS, ACTIONS 79), (anon_sym_ref, ACTIONS 81),
    (anon_sym_var, ACTIONS 81), (anon_sym_not, ACTIONS 83), (anon_sym_TILDE, ACTIONS 79),
    (anon_sym_lambda, ACTIONS 85), (anon_sym_yield, ACTIONS 87), (sym_ellipsis, ACTIONS 89),
    (anon_sym___mlir_type, ACTIONS 91), (sym_integer, ACTIONS 93), (sym_float, ACTIONS 89),
    (anon_sym_await, ACTIONS 95), (sym_true, ACTIONS 93), (sym_false, ACTIONS 93),
    (sym_none, ACTIONS 93), (sym_comment, ACTIONS 3), (sym_line_continuation, ACTIONS 3),
    (sym__dedent, ACTIONS 129), (sym_string_start, ACTIONS 97)]"

definition parse_table_11 :: "(nat \<times> nat) list" where "parse_table_11 = [
    (sym__statement, STATE 925), (sym__simple_statements, STATE 925),
    (sym_import_statement, STATE 11814), (sym_future_import_statement, STATE 11814),
    (sym_import_from_statement, STATE 11814), (sym_print_statement, STATE 11814),
    (sym_assert_statement, STATE 11814), (sym_comptime_assert_statement, STATE 11814),
    (sym_expression_statement, STATE 11814), (sym_tuple_expression, STATE 12425),
    (sym_named_expression, STATE 7969), (sym__named_expression_lhs, STATE 12752),
    (sym_return_statement, STATE 11814), (sym_delete_statement, STATE 11814),
    (sym_raise_statement, STATE 11814), (sym_pass_statement, STATE 11814),
    (sym_break_statement, STATE 11814), (sym_continue_statement, STATE 11814),
    (sym_extension_definition, STATE 925), (sym_mlir_region, STATE 925),
    (sym_comptime_statement, STATE 925), (sym_if_statement, STATE 925),
    (sym_match_statement, STATE 925), (sym_for_statement, STATE 925),
    (sym_while_statement, STATE 925), (sym_try_statement, STATE 925),
    (sym_with_statement, STATE 925), (sym_function_definition, STATE 925),
    (sym_global_statement, STATE 11814), (sym_nonlocal_statement, STATE 11814),
    (sym_exec_statement, STATE 11814), (sym_type_alias_statement, STATE 11814),
    (sym_parameterized_alias_statement, STATE 11814), (sym_class_definition, STATE 925),
    (sym_trait_definition, STATE 925), (sym_decorated_definition, STATE 925),
    (sym_decorator, STATE 3670), (sym_block, STATE 6692), (sym_pattern, STATE 8086),
    (sym_tuple_pattern, STATE 8101), (sym_list_pattern, STATE 8101),
    (sym_list_splat_pattern, STATE 6819), (sym_as_pattern, STATE 7969),
    (sym_expression, STATE 9883), (sym_primary_expression, STATE 7326),
    (sym_comptime_expression, STATE 7017), (sym_transfer_expression, STATE 7017),
    (sym_not_operator, STATE 7969), (sym_boolean_operator, STATE 7969),
    (sym_binary_operator, STATE 7017), (sym_unary_operator, STATE 7017),
    (sym_comparison_operator, STATE 7969), (sym_lambda, STATE 7969),
    (sym_assignment, STATE 12425), (sym_augmented_assignment, STATE 12425),
    (sym_pattern_list, STATE 8578), (sym_yield, STATE 12425), (sym_attribute, STATE 6836),
    (sym_subscript, STATE 6838), (sym_call, STATE 6845), (sym_mlir_type, STATE 7017),
    (sym_list, STATE 7017), (sym_set, STATE 7017), (sym_tuple, STATE 7017),
    (sym_dictionary, STATE 7017), (sym_struct_literal, STATE 7017),
    (sym_list_comprehension, STATE 7017), (sym_dictionary_comprehension, STATE 7017),
    (sym_set_comprehension, STATE 7017), (sym_generator_expression, STATE 7017),
    (sym_parenthesized_expression, STATE 7017), (sym_conditional_expression, STATE 7969),
    (sym_concatenated_string, STATE 7017), (sym_string, STATE 6751), (sym_await, STATE 7017),
    (aux_sym_module_repeat1, STATE 925), (aux_sym_decorated_definition_repeat1, STATE 3670),
    (sym_identifier, ACTIONS 9), (anon_sym_import, ACTIONS 11), (anon_sym_from, ACTIONS 13),
    (anon_sym_LPAREN, ACTIONS 15), (anon_sym_STAR, ACTIONS 17), (anon_sym_print, ACTIONS 19),
    (anon_sym_comptime, ACTIONS 99), (anon_sym_assert, ACTIONS 23),
    (anon_sym___comptime_assert, ACTIONS 25), (anon_sym_return, ACTIONS 27),
    (anon_sym_del, ACTIONS 29), (anon_sym_raise, ACTIONS 31), (anon_sym_pass, ACTIONS 33),
    (anon_sym_break, ACTIONS 35), (anon_sym_continue, ACTIONS 37),
    (anon_sym___extension, ACTIONS 101), (anon_sym___mlir_region, ACTIONS 103),
    (anon_sym_if, ACTIONS 105), (anon_sym_match, ACTIONS 107), (anon_sym_async, ACTIONS 109),
    (anon_sym_for, ACTIONS 111), (anon_sym_while, ACTIONS 113), (anon_sym_try, ACTIONS 115),
    (anon_sym_with, ACTIONS 117), (anon_sym_def, ACTIONS 119), (anon_sym_fn, ACTIONS 119),
    (anon_sym_LBRACK, ACTIONS 59), (anon_sym_LBRACE, ACTIONS 61), (anon_sym_global, ACTIONS 63),
    (anon_sym_nonlocal, ACTIONS 65), (anon_sym_exec, ACTIONS 67), (anon_sym_type, ACTIONS 69),
    (anon_sym_class, ACTIONS 121), (anon_sym_struct, ACTIONS 121), (anon_sym_mut, ACTIONS 73),
    (anon_sym_out, ACTIONS 73), (anon_sym_trait, ACTIONS 123), (anon_sym_AT, ACTIONS 77),
    (anon_sym_DASH, ACTIONS 79), (anon_sym_PLUS, ACTIONS 79), (anon_sym_ref, ACTIONS 81),
    (anon_sym_var, ACTIONS 81), (anon_sym_not, ACTIONS 83), (anon_sym_TILDE, ACTIONS 79),
    (anon_sym_lambda, ACTIONS 85), (anon_sym_yield, ACTIONS 87), (sym_ellipsis, ACTIONS 89),
    (anon_sym___mlir_type, ACTIONS 91), (sym_integer, ACTIONS 93), (sym_float, ACTIONS 89),
    (anon_sym_await, ACTIONS 95), (sym_true, ACTIONS 93), (sym_false, ACTIONS 93),
    (sym_none, ACTIONS 93), (sym_comment, ACTIONS 3), (sym_line_continuation, ACTIONS 3),
    (sym__dedent, ACTIONS 129), (sym_string_start, ACTIONS 97)]"

definition parse_table_12 :: "(nat \<times> nat) list" where "parse_table_12 = [
    (sym__statement, STATE 925), (sym__simple_statements, STATE 925),
    (sym_import_statement, STATE 11814), (sym_future_import_statement, STATE 11814),
    (sym_import_from_statement, STATE 11814), (sym_print_statement, STATE 11814),
    (sym_assert_statement, STATE 11814), (sym_comptime_assert_statement, STATE 11814),
    (sym_expression_statement, STATE 11814), (sym_tuple_expression, STATE 12425),
    (sym_named_expression, STATE 7969), (sym__named_expression_lhs, STATE 12752),
    (sym_return_statement, STATE 11814), (sym_delete_statement, STATE 11814),
    (sym_raise_statement, STATE 11814), (sym_pass_statement, STATE 11814),
    (sym_break_statement, STATE 11814), (sym_continue_statement, STATE 11814),
    (sym_extension_definition, STATE 925), (sym_mlir_region, STATE 925),
    (sym_comptime_statement, STATE 925), (sym_if_statement, STATE 925),
    (sym_match_statement, STATE 925), (sym_for_statement, STATE 925),
    (sym_while_statement, STATE 925), (sym_try_statement, STATE 925),
    (sym_with_statement, STATE 925), (sym_function_definition, STATE 925),
    (sym_global_statement, STATE 11814), (sym_nonlocal_statement, STATE 11814),
    (sym_exec_statement, STATE 11814), (sym_type_alias_statement, STATE 11814),
    (sym_parameterized_alias_statement, STATE 11814), (sym_class_definition, STATE 925),
    (sym_trait_definition, STATE 925), (sym_decorated_definition, STATE 925),
    (sym_decorator, STATE 3670), (sym_block, STATE 4556), (sym_pattern, STATE 8086),
    (sym_tuple_pattern, STATE 8101), (sym_list_pattern, STATE 8101),
    (sym_list_splat_pattern, STATE 6819), (sym_as_pattern, STATE 7969),
    (sym_expression, STATE 9883), (sym_primary_expression, STATE 7326),
    (sym_comptime_expression, STATE 7017), (sym_transfer_expression, STATE 7017),
    (sym_not_operator, STATE 7969), (sym_boolean_operator, STATE 7969),
    (sym_binary_operator, STATE 7017), (sym_unary_operator, STATE 7017),
    (sym_comparison_operator, STATE 7969), (sym_lambda, STATE 7969),
    (sym_assignment, STATE 12425), (sym_augmented_assignment, STATE 12425),
    (sym_pattern_list, STATE 8578), (sym_yield, STATE 12425), (sym_attribute, STATE 6836),
    (sym_subscript, STATE 6838), (sym_call, STATE 6845), (sym_mlir_type, STATE 7017),
    (sym_list, STATE 7017), (sym_set, STATE 7017), (sym_tuple, STATE 7017),
    (sym_dictionary, STATE 7017), (sym_struct_literal, STATE 7017),
    (sym_list_comprehension, STATE 7017), (sym_dictionary_comprehension, STATE 7017),
    (sym_set_comprehension, STATE 7017), (sym_generator_expression, STATE 7017),
    (sym_parenthesized_expression, STATE 7017), (sym_conditional_expression, STATE 7969),
    (sym_concatenated_string, STATE 7017), (sym_string, STATE 6751), (sym_await, STATE 7017),
    (aux_sym_module_repeat1, STATE 925), (aux_sym_decorated_definition_repeat1, STATE 3670),
    (sym_identifier, ACTIONS 9), (anon_sym_import, ACTIONS 11), (anon_sym_from, ACTIONS 13),
    (anon_sym_LPAREN, ACTIONS 15), (anon_sym_STAR, ACTIONS 17), (anon_sym_print, ACTIONS 19),
    (anon_sym_comptime, ACTIONS 99), (anon_sym_assert, ACTIONS 23),
    (anon_sym___comptime_assert, ACTIONS 25), (anon_sym_return, ACTIONS 27),
    (anon_sym_del, ACTIONS 29), (anon_sym_raise, ACTIONS 31), (anon_sym_pass, ACTIONS 33),
    (anon_sym_break, ACTIONS 35), (anon_sym_continue, ACTIONS 37),
    (anon_sym___extension, ACTIONS 101), (anon_sym___mlir_region, ACTIONS 103),
    (anon_sym_if, ACTIONS 105), (anon_sym_match, ACTIONS 107), (anon_sym_async, ACTIONS 109),
    (anon_sym_for, ACTIONS 111), (anon_sym_while, ACTIONS 113), (anon_sym_try, ACTIONS 115),
    (anon_sym_with, ACTIONS 117), (anon_sym_def, ACTIONS 119), (anon_sym_fn, ACTIONS 119),
    (anon_sym_LBRACK, ACTIONS 59), (anon_sym_LBRACE, ACTIONS 61), (anon_sym_global, ACTIONS 63),
    (anon_sym_nonlocal, ACTIONS 65), (anon_sym_exec, ACTIONS 67), (anon_sym_type, ACTIONS 69),
    (anon_sym_class, ACTIONS 121), (anon_sym_struct, ACTIONS 121), (anon_sym_mut, ACTIONS 73),
    (anon_sym_out, ACTIONS 73), (anon_sym_trait, ACTIONS 123), (anon_sym_AT, ACTIONS 77),
    (anon_sym_DASH, ACTIONS 79), (anon_sym_PLUS, ACTIONS 79), (anon_sym_ref, ACTIONS 81),
    (anon_sym_var, ACTIONS 81), (anon_sym_not, ACTIONS 83), (anon_sym_TILDE, ACTIONS 79),
    (anon_sym_lambda, ACTIONS 85), (anon_sym_yield, ACTIONS 87), (sym_ellipsis, ACTIONS 89),
    (anon_sym___mlir_type, ACTIONS 91), (sym_integer, ACTIONS 93), (sym_float, ACTIONS 89),
    (anon_sym_await, ACTIONS 95), (sym_true, ACTIONS 93), (sym_false, ACTIONS 93),
    (sym_none, ACTIONS 93), (sym_comment, ACTIONS 3), (sym_line_continuation, ACTIONS 3),
    (sym__dedent, ACTIONS 129), (sym_string_start, ACTIONS 97)]"

definition parse_table_13 :: "(nat \<times> nat) list" where "parse_table_13 = [
    (sym__statement, STATE 925), (sym__simple_statements, STATE 925),
    (sym_import_statement, STATE 11814), (sym_future_import_statement, STATE 11814),
    (sym_import_from_statement, STATE 11814), (sym_print_statement, STATE 11814),
    (sym_assert_statement, STATE 11814), (sym_comptime_assert_statement, STATE 11814),
    (sym_expression_statement, STATE 11814), (sym_tuple_expression, STATE 12425),
    (sym_named_expression, STATE 7969), (sym__named_expression_lhs, STATE 12752),
    (sym_return_statement, STATE 11814), (sym_delete_statement, STATE 11814),
    (sym_raise_statement, STATE 11814), (sym_pass_statement, STATE 11814),
    (sym_break_statement, STATE 11814), (sym_continue_statement, STATE 11814),
    (sym_extension_definition, STATE 925), (sym_mlir_region, STATE 925),
    (sym_comptime_statement, STATE 925), (sym_if_statement, STATE 925),
    (sym_match_statement, STATE 925), (sym_for_statement, STATE 925),
    (sym_while_statement, STATE 925), (sym_try_statement, STATE 925),
    (sym_with_statement, STATE 925), (sym_function_definition, STATE 925),
    (sym_global_statement, STATE 11814), (sym_nonlocal_statement, STATE 11814),
    (sym_exec_statement, STATE 11814), (sym_type_alias_statement, STATE 11814),
    (sym_parameterized_alias_statement, STATE 11814), (sym_class_definition, STATE 925),
    (sym_trait_definition, STATE 925), (sym_decorated_definition, STATE 925),
    (sym_decorator, STATE 3670), (sym_block, STATE 5600), (sym_pattern, STATE 8086),
    (sym_tuple_pattern, STATE 8101), (sym_list_pattern, STATE 8101),
    (sym_list_splat_pattern, STATE 6819), (sym_as_pattern, STATE 7969),
    (sym_expression, STATE 9883), (sym_primary_expression, STATE 7326),
    (sym_comptime_expression, STATE 7017), (sym_transfer_expression, STATE 7017),
    (sym_not_operator, STATE 7969), (sym_boolean_operator, STATE 7969),
    (sym_binary_operator, STATE 7017), (sym_unary_operator, STATE 7017),
    (sym_comparison_operator, STATE 7969), (sym_lambda, STATE 7969),
    (sym_assignment, STATE 12425), (sym_augmented_assignment, STATE 12425),
    (sym_pattern_list, STATE 8578), (sym_yield, STATE 12425), (sym_attribute, STATE 6836),
    (sym_subscript, STATE 6838), (sym_call, STATE 6845), (sym_mlir_type, STATE 7017),
    (sym_list, STATE 7017), (sym_set, STATE 7017), (sym_tuple, STATE 7017),
    (sym_dictionary, STATE 7017), (sym_struct_literal, STATE 7017),
    (sym_list_comprehension, STATE 7017), (sym_dictionary_comprehension, STATE 7017),
    (sym_set_comprehension, STATE 7017), (sym_generator_expression, STATE 7017),
    (sym_parenthesized_expression, STATE 7017), (sym_conditional_expression, STATE 7969),
    (sym_concatenated_string, STATE 7017), (sym_string, STATE 6751), (sym_await, STATE 7017),
    (aux_sym_module_repeat1, STATE 925), (aux_sym_decorated_definition_repeat1, STATE 3670),
    (sym_identifier, ACTIONS 9), (anon_sym_import, ACTIONS 11), (anon_sym_from, ACTIONS 13),
    (anon_sym_LPAREN, ACTIONS 15), (anon_sym_STAR, ACTIONS 17), (anon_sym_print, ACTIONS 19),
    (anon_sym_comptime, ACTIONS 99), (anon_sym_assert, ACTIONS 23),
    (anon_sym___comptime_assert, ACTIONS 25), (anon_sym_return, ACTIONS 27),
    (anon_sym_del, ACTIONS 29), (anon_sym_raise, ACTIONS 31), (anon_sym_pass, ACTIONS 33),
    (anon_sym_break, ACTIONS 35), (anon_sym_continue, ACTIONS 37),
    (anon_sym___extension, ACTIONS 101), (anon_sym___mlir_region, ACTIONS 103),
    (anon_sym_if, ACTIONS 105), (anon_sym_match, ACTIONS 107), (anon_sym_async, ACTIONS 109),
    (anon_sym_for, ACTIONS 111), (anon_sym_while, ACTIONS 113), (anon_sym_try, ACTIONS 115),
    (anon_sym_with, ACTIONS 117), (anon_sym_def, ACTIONS 119), (anon_sym_fn, ACTIONS 119),
    (anon_sym_LBRACK, ACTIONS 59), (anon_sym_LBRACE, ACTIONS 61), (anon_sym_global, ACTIONS 63),
    (anon_sym_nonlocal, ACTIONS 65), (anon_sym_exec, ACTIONS 67), (anon_sym_type, ACTIONS 69),
    (anon_sym_class, ACTIONS 121), (anon_sym_struct, ACTIONS 121), (anon_sym_mut, ACTIONS 73),
    (anon_sym_out, ACTIONS 73), (anon_sym_trait, ACTIONS 123), (anon_sym_AT, ACTIONS 77),
    (anon_sym_DASH, ACTIONS 79), (anon_sym_PLUS, ACTIONS 79), (anon_sym_ref, ACTIONS 81),
    (anon_sym_var, ACTIONS 81), (anon_sym_not, ACTIONS 83), (anon_sym_TILDE, ACTIONS 79),
    (anon_sym_lambda, ACTIONS 85), (anon_sym_yield, ACTIONS 87), (sym_ellipsis, ACTIONS 89),
    (anon_sym___mlir_type, ACTIONS 91), (sym_integer, ACTIONS 93), (sym_float, ACTIONS 89),
    (anon_sym_await, ACTIONS 95), (sym_true, ACTIONS 93), (sym_false, ACTIONS 93),
    (sym_none, ACTIONS 93), (sym_comment, ACTIONS 3), (sym_line_continuation, ACTIONS 3),
    (sym__dedent, ACTIONS 129), (sym_string_start, ACTIONS 97)]"

definition parse_table_14 :: "(nat \<times> nat) list" where "parse_table_14 = [
    (sym__statement, STATE 925), (sym__simple_statements, STATE 925),
    (sym_import_statement, STATE 11814), (sym_future_import_statement, STATE 11814),
    (sym_import_from_statement, STATE 11814), (sym_print_statement, STATE 11814),
    (sym_assert_statement, STATE 11814), (sym_comptime_assert_statement, STATE 11814),
    (sym_expression_statement, STATE 11814), (sym_tuple_expression, STATE 12425),
    (sym_named_expression, STATE 7969), (sym__named_expression_lhs, STATE 12752),
    (sym_return_statement, STATE 11814), (sym_delete_statement, STATE 11814),
    (sym_raise_statement, STATE 11814), (sym_pass_statement, STATE 11814),
    (sym_break_statement, STATE 11814), (sym_continue_statement, STATE 11814),
    (sym_extension_definition, STATE 925), (sym_mlir_region, STATE 925),
    (sym_comptime_statement, STATE 925), (sym_if_statement, STATE 925),
    (sym_match_statement, STATE 925), (sym_for_statement, STATE 925),
    (sym_while_statement, STATE 925), (sym_try_statement, STATE 925),
    (sym_with_statement, STATE 925), (sym_function_definition, STATE 925),
    (sym_global_statement, STATE 11814), (sym_nonlocal_statement, STATE 11814),
    (sym_exec_statement, STATE 11814), (sym_type_alias_statement, STATE 11814),
    (sym_parameterized_alias_statement, STATE 11814), (sym_class_definition, STATE 925),
    (sym_trait_definition, STATE 925), (sym_decorated_definition, STATE 925),
    (sym_decorator, STATE 3670), (sym_block, STATE 4527), (sym_pattern, STATE 8086),
    (sym_tuple_pattern, STATE 8101), (sym_list_pattern, STATE 8101),
    (sym_list_splat_pattern, STATE 6819), (sym_as_pattern, STATE 7969),
    (sym_expression, STATE 9883), (sym_primary_expression, STATE 7326),
    (sym_comptime_expression, STATE 7017), (sym_transfer_expression, STATE 7017),
    (sym_not_operator, STATE 7969), (sym_boolean_operator, STATE 7969),
    (sym_binary_operator, STATE 7017), (sym_unary_operator, STATE 7017),
    (sym_comparison_operator, STATE 7969), (sym_lambda, STATE 7969),
    (sym_assignment, STATE 12425), (sym_augmented_assignment, STATE 12425),
    (sym_pattern_list, STATE 8578), (sym_yield, STATE 12425), (sym_attribute, STATE 6836),
    (sym_subscript, STATE 6838), (sym_call, STATE 6845), (sym_mlir_type, STATE 7017),
    (sym_list, STATE 7017), (sym_set, STATE 7017), (sym_tuple, STATE 7017),
    (sym_dictionary, STATE 7017), (sym_struct_literal, STATE 7017),
    (sym_list_comprehension, STATE 7017), (sym_dictionary_comprehension, STATE 7017),
    (sym_set_comprehension, STATE 7017), (sym_generator_expression, STATE 7017),
    (sym_parenthesized_expression, STATE 7017), (sym_conditional_expression, STATE 7969),
    (sym_concatenated_string, STATE 7017), (sym_string, STATE 6751), (sym_await, STATE 7017),
    (aux_sym_module_repeat1, STATE 925), (aux_sym_decorated_definition_repeat1, STATE 3670),
    (sym_identifier, ACTIONS 9), (anon_sym_import, ACTIONS 11), (anon_sym_from, ACTIONS 13),
    (anon_sym_LPAREN, ACTIONS 15), (anon_sym_STAR, ACTIONS 17), (anon_sym_print, ACTIONS 19),
    (anon_sym_comptime, ACTIONS 99), (anon_sym_assert, ACTIONS 23),
    (anon_sym___comptime_assert, ACTIONS 25), (anon_sym_return, ACTIONS 27),
    (anon_sym_del, ACTIONS 29), (anon_sym_raise, ACTIONS 31), (anon_sym_pass, ACTIONS 33),
    (anon_sym_break, ACTIONS 35), (anon_sym_continue, ACTIONS 37),
    (anon_sym___extension, ACTIONS 101), (anon_sym___mlir_region, ACTIONS 103),
    (anon_sym_if, ACTIONS 105), (anon_sym_match, ACTIONS 107), (anon_sym_async, ACTIONS 109),
    (anon_sym_for, ACTIONS 111), (anon_sym_while, ACTIONS 113), (anon_sym_try, ACTIONS 115),
    (anon_sym_with, ACTIONS 117), (anon_sym_def, ACTIONS 119), (anon_sym_fn, ACTIONS 119),
    (anon_sym_LBRACK, ACTIONS 59), (anon_sym_LBRACE, ACTIONS 61), (anon_sym_global, ACTIONS 63),
    (anon_sym_nonlocal, ACTIONS 65), (anon_sym_exec, ACTIONS 67), (anon_sym_type, ACTIONS 69),
    (anon_sym_class, ACTIONS 121), (anon_sym_struct, ACTIONS 121), (anon_sym_mut, ACTIONS 73),
    (anon_sym_out, ACTIONS 73), (anon_sym_trait, ACTIONS 123), (anon_sym_AT, ACTIONS 77),
    (anon_sym_DASH, ACTIONS 79), (anon_sym_PLUS, ACTIONS 79), (anon_sym_ref, ACTIONS 81),
    (anon_sym_var, ACTIONS 81), (anon_sym_not, ACTIONS 83), (anon_sym_TILDE, ACTIONS 79),
    (anon_sym_lambda, ACTIONS 85), (anon_sym_yield, ACTIONS 87), (sym_ellipsis, ACTIONS 89),
    (anon_sym___mlir_type, ACTIONS 91), (sym_integer, ACTIONS 93), (sym_float, ACTIONS 89),
    (anon_sym_await, ACTIONS 95), (sym_true, ACTIONS 93), (sym_false, ACTIONS 93),
    (sym_none, ACTIONS 93), (sym_comment, ACTIONS 3), (sym_line_continuation, ACTIONS 3),
    (sym__dedent, ACTIONS 129), (sym_string_start, ACTIONS 97)]"

definition parse_table_15 :: "(nat \<times> nat) list" where "parse_table_15 = [
    (sym__statement, STATE 925), (sym__simple_statements, STATE 925),
    (sym_import_statement, STATE 11814), (sym_future_import_statement, STATE 11814),
    (sym_import_from_statement, STATE 11814), (sym_print_statement, STATE 11814),
    (sym_assert_statement, STATE 11814), (sym_comptime_assert_statement, STATE 11814),
    (sym_expression_statement, STATE 11814), (sym_tuple_expression, STATE 12425),
    (sym_named_expression, STATE 7969), (sym__named_expression_lhs, STATE 12752),
    (sym_return_statement, STATE 11814), (sym_delete_statement, STATE 11814),
    (sym_raise_statement, STATE 11814), (sym_pass_statement, STATE 11814),
    (sym_break_statement, STATE 11814), (sym_continue_statement, STATE 11814),
    (sym_extension_definition, STATE 925), (sym_mlir_region, STATE 925),
    (sym_comptime_statement, STATE 925), (sym_if_statement, STATE 925),
    (sym_match_statement, STATE 925), (sym_for_statement, STATE 925),
    (sym_while_statement, STATE 925), (sym_try_statement, STATE 925),
    (sym_with_statement, STATE 925), (sym_function_definition, STATE 925),
    (sym_global_statement, STATE 11814), (sym_nonlocal_statement, STATE 11814),
    (sym_exec_statement, STATE 11814), (sym_type_alias_statement, STATE 11814),
    (sym_parameterized_alias_statement, STATE 11814), (sym_class_definition, STATE 925),
    (sym_trait_definition, STATE 925), (sym_decorated_definition, STATE 925),
    (sym_decorator, STATE 3670), (sym_block, STATE 4529), (sym_pattern, STATE 8086),
    (sym_tuple_pattern, STATE 8101), (sym_list_pattern, STATE 8101),
    (sym_list_splat_pattern, STATE 6819), (sym_as_pattern, STATE 7969),
    (sym_expression, STATE 9883), (sym_primary_expression, STATE 7326),
    (sym_comptime_expression, STATE 7017), (sym_transfer_expression, STATE 7017),
    (sym_not_operator, STATE 7969), (sym_boolean_operator, STATE 7969),
    (sym_binary_operator, STATE 7017), (sym_unary_operator, STATE 7017),
    (sym_comparison_operator, STATE 7969), (sym_lambda, STATE 7969),
    (sym_assignment, STATE 12425), (sym_augmented_assignment, STATE 12425),
    (sym_pattern_list, STATE 8578), (sym_yield, STATE 12425), (sym_attribute, STATE 6836),
    (sym_subscript, STATE 6838), (sym_call, STATE 6845), (sym_mlir_type, STATE 7017),
    (sym_list, STATE 7017), (sym_set, STATE 7017), (sym_tuple, STATE 7017),
    (sym_dictionary, STATE 7017), (sym_struct_literal, STATE 7017),
    (sym_list_comprehension, STATE 7017), (sym_dictionary_comprehension, STATE 7017),
    (sym_set_comprehension, STATE 7017), (sym_generator_expression, STATE 7017),
    (sym_parenthesized_expression, STATE 7017), (sym_conditional_expression, STATE 7969),
    (sym_concatenated_string, STATE 7017), (sym_string, STATE 6751), (sym_await, STATE 7017),
    (aux_sym_module_repeat1, STATE 925), (aux_sym_decorated_definition_repeat1, STATE 3670),
    (sym_identifier, ACTIONS 9), (anon_sym_import, ACTIONS 11), (anon_sym_from, ACTIONS 13),
    (anon_sym_LPAREN, ACTIONS 15), (anon_sym_STAR, ACTIONS 17), (anon_sym_print, ACTIONS 19),
    (anon_sym_comptime, ACTIONS 99), (anon_sym_assert, ACTIONS 23),
    (anon_sym___comptime_assert, ACTIONS 25), (anon_sym_return, ACTIONS 27),
    (anon_sym_del, ACTIONS 29), (anon_sym_raise, ACTIONS 31), (anon_sym_pass, ACTIONS 33),
    (anon_sym_break, ACTIONS 35), (anon_sym_continue, ACTIONS 37),
    (anon_sym___extension, ACTIONS 101), (anon_sym___mlir_region, ACTIONS 103),
    (anon_sym_if, ACTIONS 105), (anon_sym_match, ACTIONS 107), (anon_sym_async, ACTIONS 109),
    (anon_sym_for, ACTIONS 111), (anon_sym_while, ACTIONS 113), (anon_sym_try, ACTIONS 115),
    (anon_sym_with, ACTIONS 117), (anon_sym_def, ACTIONS 119), (anon_sym_fn, ACTIONS 119),
    (anon_sym_LBRACK, ACTIONS 59), (anon_sym_LBRACE, ACTIONS 61), (anon_sym_global, ACTIONS 63),
    (anon_sym_nonlocal, ACTIONS 65), (anon_sym_exec, ACTIONS 67), (anon_sym_type, ACTIONS 69),
    (anon_sym_class, ACTIONS 121), (anon_sym_struct, ACTIONS 121), (anon_sym_mut, ACTIONS 73),
    (anon_sym_out, ACTIONS 73), (anon_sym_trait, ACTIONS 123), (anon_sym_AT, ACTIONS 77),
    (anon_sym_DASH, ACTIONS 79), (anon_sym_PLUS, ACTIONS 79), (anon_sym_ref, ACTIONS 81),
    (anon_sym_var, ACTIONS 81), (anon_sym_not, ACTIONS 83), (anon_sym_TILDE, ACTIONS 79),
    (anon_sym_lambda, ACTIONS 85), (anon_sym_yield, ACTIONS 87), (sym_ellipsis, ACTIONS 89),
    (anon_sym___mlir_type, ACTIONS 91), (sym_integer, ACTIONS 93), (sym_float, ACTIONS 89),
    (anon_sym_await, ACTIONS 95), (sym_true, ACTIONS 93), (sym_false, ACTIONS 93),
    (sym_none, ACTIONS 93), (sym_comment, ACTIONS 3), (sym_line_continuation, ACTIONS 3),
    (sym__dedent, ACTIONS 129), (sym_string_start, ACTIONS 97)]"

definition parse_table_16 :: "(nat \<times> nat) list" where "parse_table_16 = [
    (sym__statement, STATE 925), (sym__simple_statements, STATE 925),
    (sym_import_statement, STATE 11814), (sym_future_import_statement, STATE 11814),
    (sym_import_from_statement, STATE 11814), (sym_print_statement, STATE 11814),
    (sym_assert_statement, STATE 11814), (sym_comptime_assert_statement, STATE 11814),
    (sym_expression_statement, STATE 11814), (sym_tuple_expression, STATE 12425),
    (sym_named_expression, STATE 7969), (sym__named_expression_lhs, STATE 12752),
    (sym_return_statement, STATE 11814), (sym_delete_statement, STATE 11814),
    (sym_raise_statement, STATE 11814), (sym_pass_statement, STATE 11814),
    (sym_break_statement, STATE 11814), (sym_continue_statement, STATE 11814),
    (sym_extension_definition, STATE 925), (sym_mlir_region, STATE 925),
    (sym_comptime_statement, STATE 925), (sym_if_statement, STATE 925),
    (sym_match_statement, STATE 925), (sym_for_statement, STATE 925),
    (sym_while_statement, STATE 925), (sym_try_statement, STATE 925),
    (sym_with_statement, STATE 925), (sym_function_definition, STATE 925),
    (sym_global_statement, STATE 11814), (sym_nonlocal_statement, STATE 11814),
    (sym_exec_statement, STATE 11814), (sym_type_alias_statement, STATE 11814),
    (sym_parameterized_alias_statement, STATE 11814), (sym_class_definition, STATE 925),
    (sym_trait_definition, STATE 925), (sym_decorated_definition, STATE 925),
    (sym_decorator, STATE 3670), (sym_block, STATE 4545), (sym_pattern, STATE 8086),
    (sym_tuple_pattern, STATE 8101), (sym_list_pattern, STATE 8101),
    (sym_list_splat_pattern, STATE 6819), (sym_as_pattern, STATE 7969),
    (sym_expression, STATE 9883), (sym_primary_expression, STATE 7326),
    (sym_comptime_expression, STATE 7017), (sym_transfer_expression, STATE 7017),
    (sym_not_operator, STATE 7969), (sym_boolean_operator, STATE 7969),
    (sym_binary_operator, STATE 7017), (sym_unary_operator, STATE 7017),
    (sym_comparison_operator, STATE 7969), (sym_lambda, STATE 7969),
    (sym_assignment, STATE 12425), (sym_augmented_assignment, STATE 12425),
    (sym_pattern_list, STATE 8578), (sym_yield, STATE 12425), (sym_attribute, STATE 6836),
    (sym_subscript, STATE 6838), (sym_call, STATE 6845), (sym_mlir_type, STATE 7017),
    (sym_list, STATE 7017), (sym_set, STATE 7017), (sym_tuple, STATE 7017),
    (sym_dictionary, STATE 7017), (sym_struct_literal, STATE 7017),
    (sym_list_comprehension, STATE 7017), (sym_dictionary_comprehension, STATE 7017),
    (sym_set_comprehension, STATE 7017), (sym_generator_expression, STATE 7017),
    (sym_parenthesized_expression, STATE 7017), (sym_conditional_expression, STATE 7969),
    (sym_concatenated_string, STATE 7017), (sym_string, STATE 6751), (sym_await, STATE 7017),
    (aux_sym_module_repeat1, STATE 925), (aux_sym_decorated_definition_repeat1, STATE 3670),
    (sym_identifier, ACTIONS 9), (anon_sym_import, ACTIONS 11), (anon_sym_from, ACTIONS 13),
    (anon_sym_LPAREN, ACTIONS 15), (anon_sym_STAR, ACTIONS 17), (anon_sym_print, ACTIONS 19),
    (anon_sym_comptime, ACTIONS 99), (anon_sym_assert, ACTIONS 23),
    (anon_sym___comptime_assert, ACTIONS 25), (anon_sym_return, ACTIONS 27),
    (anon_sym_del, ACTIONS 29), (anon_sym_raise, ACTIONS 31), (anon_sym_pass, ACTIONS 33),
    (anon_sym_break, ACTIONS 35), (anon_sym_continue, ACTIONS 37),
    (anon_sym___extension, ACTIONS 101), (anon_sym___mlir_region, ACTIONS 103),
    (anon_sym_if, ACTIONS 105), (anon_sym_match, ACTIONS 107), (anon_sym_async, ACTIONS 109),
    (anon_sym_for, ACTIONS 111), (anon_sym_while, ACTIONS 113), (anon_sym_try, ACTIONS 115),
    (anon_sym_with, ACTIONS 117), (anon_sym_def, ACTIONS 119), (anon_sym_fn, ACTIONS 119),
    (anon_sym_LBRACK, ACTIONS 59), (anon_sym_LBRACE, ACTIONS 61), (anon_sym_global, ACTIONS 63),
    (anon_sym_nonlocal, ACTIONS 65), (anon_sym_exec, ACTIONS 67), (anon_sym_type, ACTIONS 69),
    (anon_sym_class, ACTIONS 121), (anon_sym_struct, ACTIONS 121), (anon_sym_mut, ACTIONS 73),
    (anon_sym_out, ACTIONS 73), (anon_sym_trait, ACTIONS 123), (anon_sym_AT, ACTIONS 77),
    (anon_sym_DASH, ACTIONS 79), (anon_sym_PLUS, ACTIONS 79), (anon_sym_ref, ACTIONS 81),
    (anon_sym_var, ACTIONS 81), (anon_sym_not, ACTIONS 83), (anon_sym_TILDE, ACTIONS 79),
    (anon_sym_lambda, ACTIONS 85), (anon_sym_yield, ACTIONS 87), (sym_ellipsis, ACTIONS 89),
    (anon_sym___mlir_type, ACTIONS 91), (sym_integer, ACTIONS 93), (sym_float, ACTIONS 89),
    (anon_sym_await, ACTIONS 95), (sym_true, ACTIONS 93), (sym_false, ACTIONS 93),
    (sym_none, ACTIONS 93), (sym_comment, ACTIONS 3), (sym_line_continuation, ACTIONS 3),
    (sym__dedent, ACTIONS 129), (sym_string_start, ACTIONS 97)]"

definition parse_table_17 :: "(nat \<times> nat) list" where "parse_table_17 = [
    (sym__statement, STATE 925), (sym__simple_statements, STATE 925),
    (sym_import_statement, STATE 11814), (sym_future_import_statement, STATE 11814),
    (sym_import_from_statement, STATE 11814), (sym_print_statement, STATE 11814),
    (sym_assert_statement, STATE 11814), (sym_comptime_assert_statement, STATE 11814),
    (sym_expression_statement, STATE 11814), (sym_tuple_expression, STATE 12425),
    (sym_named_expression, STATE 7969), (sym__named_expression_lhs, STATE 12752),
    (sym_return_statement, STATE 11814), (sym_delete_statement, STATE 11814),
    (sym_raise_statement, STATE 11814), (sym_pass_statement, STATE 11814),
    (sym_break_statement, STATE 11814), (sym_continue_statement, STATE 11814),
    (sym_extension_definition, STATE 925), (sym_mlir_region, STATE 925),
    (sym_comptime_statement, STATE 925), (sym_if_statement, STATE 925),
    (sym_match_statement, STATE 925), (sym_for_statement, STATE 925),
    (sym_while_statement, STATE 925), (sym_try_statement, STATE 925),
    (sym_with_statement, STATE 925), (sym_function_definition, STATE 925),
    (sym_global_statement, STATE 11814), (sym_nonlocal_statement, STATE 11814),
    (sym_exec_statement, STATE 11814), (sym_type_alias_statement, STATE 11814),
    (sym_parameterized_alias_statement, STATE 11814), (sym_class_definition, STATE 925),
    (sym_trait_definition, STATE 925), (sym_decorated_definition, STATE 925),
    (sym_decorator, STATE 3670), (sym_block, STATE 4669), (sym_pattern, STATE 8086),
    (sym_tuple_pattern, STATE 8101), (sym_list_pattern, STATE 8101),
    (sym_list_splat_pattern, STATE 6819), (sym_as_pattern, STATE 7969),
    (sym_expression, STATE 9883), (sym_primary_expression, STATE 7326),
    (sym_comptime_expression, STATE 7017), (sym_transfer_expression, STATE 7017),
    (sym_not_operator, STATE 7969), (sym_boolean_operator, STATE 7969),
    (sym_binary_operator, STATE 7017), (sym_unary_operator, STATE 7017),
    (sym_comparison_operator, STATE 7969), (sym_lambda, STATE 7969),
    (sym_assignment, STATE 12425), (sym_augmented_assignment, STATE 12425),
    (sym_pattern_list, STATE 8578), (sym_yield, STATE 12425), (sym_attribute, STATE 6836),
    (sym_subscript, STATE 6838), (sym_call, STATE 6845), (sym_mlir_type, STATE 7017),
    (sym_list, STATE 7017), (sym_set, STATE 7017), (sym_tuple, STATE 7017),
    (sym_dictionary, STATE 7017), (sym_struct_literal, STATE 7017),
    (sym_list_comprehension, STATE 7017), (sym_dictionary_comprehension, STATE 7017),
    (sym_set_comprehension, STATE 7017), (sym_generator_expression, STATE 7017),
    (sym_parenthesized_expression, STATE 7017), (sym_conditional_expression, STATE 7969),
    (sym_concatenated_string, STATE 7017), (sym_string, STATE 6751), (sym_await, STATE 7017),
    (aux_sym_module_repeat1, STATE 925), (aux_sym_decorated_definition_repeat1, STATE 3670),
    (sym_identifier, ACTIONS 9), (anon_sym_import, ACTIONS 11), (anon_sym_from, ACTIONS 13),
    (anon_sym_LPAREN, ACTIONS 15), (anon_sym_STAR, ACTIONS 17), (anon_sym_print, ACTIONS 19),
    (anon_sym_comptime, ACTIONS 99), (anon_sym_assert, ACTIONS 23),
    (anon_sym___comptime_assert, ACTIONS 25), (anon_sym_return, ACTIONS 27),
    (anon_sym_del, ACTIONS 29), (anon_sym_raise, ACTIONS 31), (anon_sym_pass, ACTIONS 33),
    (anon_sym_break, ACTIONS 35), (anon_sym_continue, ACTIONS 37),
    (anon_sym___extension, ACTIONS 101), (anon_sym___mlir_region, ACTIONS 103),
    (anon_sym_if, ACTIONS 105), (anon_sym_match, ACTIONS 107), (anon_sym_async, ACTIONS 109),
    (anon_sym_for, ACTIONS 111), (anon_sym_while, ACTIONS 113), (anon_sym_try, ACTIONS 115),
    (anon_sym_with, ACTIONS 117), (anon_sym_def, ACTIONS 119), (anon_sym_fn, ACTIONS 119),
    (anon_sym_LBRACK, ACTIONS 59), (anon_sym_LBRACE, ACTIONS 61), (anon_sym_global, ACTIONS 63),
    (anon_sym_nonlocal, ACTIONS 65), (anon_sym_exec, ACTIONS 67), (anon_sym_type, ACTIONS 69),
    (anon_sym_class, ACTIONS 121), (anon_sym_struct, ACTIONS 121), (anon_sym_mut, ACTIONS 73),
    (anon_sym_out, ACTIONS 73), (anon_sym_trait, ACTIONS 123), (anon_sym_AT, ACTIONS 77),
    (anon_sym_DASH, ACTIONS 79), (anon_sym_PLUS, ACTIONS 79), (anon_sym_ref, ACTIONS 81),
    (anon_sym_var, ACTIONS 81), (anon_sym_not, ACTIONS 83), (anon_sym_TILDE, ACTIONS 79),
    (anon_sym_lambda, ACTIONS 85), (anon_sym_yield, ACTIONS 87), (sym_ellipsis, ACTIONS 89),
    (anon_sym___mlir_type, ACTIONS 91), (sym_integer, ACTIONS 93), (sym_float, ACTIONS 89),
    (anon_sym_await, ACTIONS 95), (sym_true, ACTIONS 93), (sym_false, ACTIONS 93),
    (sym_none, ACTIONS 93), (sym_comment, ACTIONS 3), (sym_line_continuation, ACTIONS 3),
    (sym__dedent, ACTIONS 129), (sym_string_start, ACTIONS 97)]"

definition parse_table_18 :: "(nat \<times> nat) list" where "parse_table_18 = [
    (sym__statement, STATE 925), (sym__simple_statements, STATE 925),
    (sym_import_statement, STATE 11814), (sym_future_import_statement, STATE 11814),
    (sym_import_from_statement, STATE 11814), (sym_print_statement, STATE 11814),
    (sym_assert_statement, STATE 11814), (sym_comptime_assert_statement, STATE 11814),
    (sym_expression_statement, STATE 11814), (sym_tuple_expression, STATE 12425),
    (sym_named_expression, STATE 7969), (sym__named_expression_lhs, STATE 12752),
    (sym_return_statement, STATE 11814), (sym_delete_statement, STATE 11814),
    (sym_raise_statement, STATE 11814), (sym_pass_statement, STATE 11814),
    (sym_break_statement, STATE 11814), (sym_continue_statement, STATE 11814),
    (sym_extension_definition, STATE 925), (sym_mlir_region, STATE 925),
    (sym_comptime_statement, STATE 925), (sym_if_statement, STATE 925),
    (sym_match_statement, STATE 925), (sym_for_statement, STATE 925),
    (sym_while_statement, STATE 925), (sym_try_statement, STATE 925),
    (sym_with_statement, STATE 925), (sym_function_definition, STATE 925),
    (sym_global_statement, STATE 11814), (sym_nonlocal_statement, STATE 11814),
    (sym_exec_statement, STATE 11814), (sym_type_alias_statement, STATE 11814),
    (sym_parameterized_alias_statement, STATE 11814), (sym_class_definition, STATE 925),
    (sym_trait_definition, STATE 925), (sym_decorated_definition, STATE 925),
    (sym_decorator, STATE 3670), (sym_block, STATE 4304), (sym_pattern, STATE 8086),
    (sym_tuple_pattern, STATE 8101), (sym_list_pattern, STATE 8101),
    (sym_list_splat_pattern, STATE 6819), (sym_as_pattern, STATE 7969),
    (sym_expression, STATE 9883), (sym_primary_expression, STATE 7326),
    (sym_comptime_expression, STATE 7017), (sym_transfer_expression, STATE 7017),
    (sym_not_operator, STATE 7969), (sym_boolean_operator, STATE 7969),
    (sym_binary_operator, STATE 7017), (sym_unary_operator, STATE 7017),
    (sym_comparison_operator, STATE 7969), (sym_lambda, STATE 7969),
    (sym_assignment, STATE 12425), (sym_augmented_assignment, STATE 12425),
    (sym_pattern_list, STATE 8578), (sym_yield, STATE 12425), (sym_attribute, STATE 6836),
    (sym_subscript, STATE 6838), (sym_call, STATE 6845), (sym_mlir_type, STATE 7017),
    (sym_list, STATE 7017), (sym_set, STATE 7017), (sym_tuple, STATE 7017),
    (sym_dictionary, STATE 7017), (sym_struct_literal, STATE 7017),
    (sym_list_comprehension, STATE 7017), (sym_dictionary_comprehension, STATE 7017),
    (sym_set_comprehension, STATE 7017), (sym_generator_expression, STATE 7017),
    (sym_parenthesized_expression, STATE 7017), (sym_conditional_expression, STATE 7969),
    (sym_concatenated_string, STATE 7017), (sym_string, STATE 6751), (sym_await, STATE 7017),
    (aux_sym_module_repeat1, STATE 925), (aux_sym_decorated_definition_repeat1, STATE 3670),
    (sym_identifier, ACTIONS 9), (anon_sym_import, ACTIONS 11), (anon_sym_from, ACTIONS 13),
    (anon_sym_LPAREN, ACTIONS 15), (anon_sym_STAR, ACTIONS 17), (anon_sym_print, ACTIONS 19),
    (anon_sym_comptime, ACTIONS 99), (anon_sym_assert, ACTIONS 23),
    (anon_sym___comptime_assert, ACTIONS 25), (anon_sym_return, ACTIONS 27),
    (anon_sym_del, ACTIONS 29), (anon_sym_raise, ACTIONS 31), (anon_sym_pass, ACTIONS 33),
    (anon_sym_break, ACTIONS 35), (anon_sym_continue, ACTIONS 37),
    (anon_sym___extension, ACTIONS 101), (anon_sym___mlir_region, ACTIONS 103),
    (anon_sym_if, ACTIONS 105), (anon_sym_match, ACTIONS 107), (anon_sym_async, ACTIONS 109),
    (anon_sym_for, ACTIONS 111), (anon_sym_while, ACTIONS 113), (anon_sym_try, ACTIONS 115),
    (anon_sym_with, ACTIONS 117), (anon_sym_def, ACTIONS 119), (anon_sym_fn, ACTIONS 119),
    (anon_sym_LBRACK, ACTIONS 59), (anon_sym_LBRACE, ACTIONS 61), (anon_sym_global, ACTIONS 63),
    (anon_sym_nonlocal, ACTIONS 65), (anon_sym_exec, ACTIONS 67), (anon_sym_type, ACTIONS 69),
    (anon_sym_class, ACTIONS 121), (anon_sym_struct, ACTIONS 121), (anon_sym_mut, ACTIONS 73),
    (anon_sym_out, ACTIONS 73), (anon_sym_trait, ACTIONS 123), (anon_sym_AT, ACTIONS 77),
    (anon_sym_DASH, ACTIONS 79), (anon_sym_PLUS, ACTIONS 79), (anon_sym_ref, ACTIONS 81),
    (anon_sym_var, ACTIONS 81), (anon_sym_not, ACTIONS 83), (anon_sym_TILDE, ACTIONS 79),
    (anon_sym_lambda, ACTIONS 85), (anon_sym_yield, ACTIONS 87), (sym_ellipsis, ACTIONS 89),
    (anon_sym___mlir_type, ACTIONS 91), (sym_integer, ACTIONS 93), (sym_float, ACTIONS 89),
    (anon_sym_await, ACTIONS 95), (sym_true, ACTIONS 93), (sym_false, ACTIONS 93),
    (sym_none, ACTIONS 93), (sym_comment, ACTIONS 3), (sym_line_continuation, ACTIONS 3),
    (sym__dedent, ACTIONS 129), (sym_string_start, ACTIONS 97)]"

definition parse_table_19 :: "(nat \<times> nat) list" where "parse_table_19 = [
    (sym__statement, STATE 925), (sym__simple_statements, STATE 925),
    (sym_import_statement, STATE 11814), (sym_future_import_statement, STATE 11814),
    (sym_import_from_statement, STATE 11814), (sym_print_statement, STATE 11814),
    (sym_assert_statement, STATE 11814), (sym_comptime_assert_statement, STATE 11814),
    (sym_expression_statement, STATE 11814), (sym_tuple_expression, STATE 12425),
    (sym_named_expression, STATE 7969), (sym__named_expression_lhs, STATE 12752),
    (sym_return_statement, STATE 11814), (sym_delete_statement, STATE 11814),
    (sym_raise_statement, STATE 11814), (sym_pass_statement, STATE 11814),
    (sym_break_statement, STATE 11814), (sym_continue_statement, STATE 11814),
    (sym_extension_definition, STATE 925), (sym_mlir_region, STATE 925),
    (sym_comptime_statement, STATE 925), (sym_if_statement, STATE 925),
    (sym_match_statement, STATE 925), (sym_for_statement, STATE 925),
    (sym_while_statement, STATE 925), (sym_try_statement, STATE 925),
    (sym_with_statement, STATE 925), (sym_function_definition, STATE 925),
    (sym_global_statement, STATE 11814), (sym_nonlocal_statement, STATE 11814),
    (sym_exec_statement, STATE 11814), (sym_type_alias_statement, STATE 11814),
    (sym_parameterized_alias_statement, STATE 11814), (sym_class_definition, STATE 925),
    (sym_trait_definition, STATE 925), (sym_decorated_definition, STATE 925),
    (sym_decorator, STATE 3670), (sym_block, STATE 4128), (sym_pattern, STATE 8086),
    (sym_tuple_pattern, STATE 8101), (sym_list_pattern, STATE 8101),
    (sym_list_splat_pattern, STATE 6819), (sym_as_pattern, STATE 7969),
    (sym_expression, STATE 9883), (sym_primary_expression, STATE 7326),
    (sym_comptime_expression, STATE 7017), (sym_transfer_expression, STATE 7017),
    (sym_not_operator, STATE 7969), (sym_boolean_operator, STATE 7969),
    (sym_binary_operator, STATE 7017), (sym_unary_operator, STATE 7017),
    (sym_comparison_operator, STATE 7969), (sym_lambda, STATE 7969),
    (sym_assignment, STATE 12425), (sym_augmented_assignment, STATE 12425),
    (sym_pattern_list, STATE 8578), (sym_yield, STATE 12425), (sym_attribute, STATE 6836),
    (sym_subscript, STATE 6838), (sym_call, STATE 6845), (sym_mlir_type, STATE 7017),
    (sym_list, STATE 7017), (sym_set, STATE 7017), (sym_tuple, STATE 7017),
    (sym_dictionary, STATE 7017), (sym_struct_literal, STATE 7017),
    (sym_list_comprehension, STATE 7017), (sym_dictionary_comprehension, STATE 7017),
    (sym_set_comprehension, STATE 7017), (sym_generator_expression, STATE 7017),
    (sym_parenthesized_expression, STATE 7017), (sym_conditional_expression, STATE 7969),
    (sym_concatenated_string, STATE 7017), (sym_string, STATE 6751), (sym_await, STATE 7017),
    (aux_sym_module_repeat1, STATE 925), (aux_sym_decorated_definition_repeat1, STATE 3670),
    (sym_identifier, ACTIONS 9), (anon_sym_import, ACTIONS 11), (anon_sym_from, ACTIONS 13),
    (anon_sym_LPAREN, ACTIONS 15), (anon_sym_STAR, ACTIONS 17), (anon_sym_print, ACTIONS 19),
    (anon_sym_comptime, ACTIONS 99), (anon_sym_assert, ACTIONS 23),
    (anon_sym___comptime_assert, ACTIONS 25), (anon_sym_return, ACTIONS 27),
    (anon_sym_del, ACTIONS 29), (anon_sym_raise, ACTIONS 31), (anon_sym_pass, ACTIONS 33),
    (anon_sym_break, ACTIONS 35), (anon_sym_continue, ACTIONS 37),
    (anon_sym___extension, ACTIONS 101), (anon_sym___mlir_region, ACTIONS 103),
    (anon_sym_if, ACTIONS 105), (anon_sym_match, ACTIONS 107), (anon_sym_async, ACTIONS 109),
    (anon_sym_for, ACTIONS 111), (anon_sym_while, ACTIONS 113), (anon_sym_try, ACTIONS 115),
    (anon_sym_with, ACTIONS 117), (anon_sym_def, ACTIONS 119), (anon_sym_fn, ACTIONS 119),
    (anon_sym_LBRACK, ACTIONS 59), (anon_sym_LBRACE, ACTIONS 61), (anon_sym_global, ACTIONS 63),
    (anon_sym_nonlocal, ACTIONS 65), (anon_sym_exec, ACTIONS 67), (anon_sym_type, ACTIONS 69),
    (anon_sym_class, ACTIONS 121), (anon_sym_struct, ACTIONS 121), (anon_sym_mut, ACTIONS 73),
    (anon_sym_out, ACTIONS 73), (anon_sym_trait, ACTIONS 123), (anon_sym_AT, ACTIONS 77),
    (anon_sym_DASH, ACTIONS 79), (anon_sym_PLUS, ACTIONS 79), (anon_sym_ref, ACTIONS 81),
    (anon_sym_var, ACTIONS 81), (anon_sym_not, ACTIONS 83), (anon_sym_TILDE, ACTIONS 79),
    (anon_sym_lambda, ACTIONS 85), (anon_sym_yield, ACTIONS 87), (sym_ellipsis, ACTIONS 89),
    (anon_sym___mlir_type, ACTIONS 91), (sym_integer, ACTIONS 93), (sym_float, ACTIONS 89),
    (anon_sym_await, ACTIONS 95), (sym_true, ACTIONS 93), (sym_false, ACTIONS 93),
    (sym_none, ACTIONS 93), (sym_comment, ACTIONS 3), (sym_line_continuation, ACTIONS 3),
    (sym__dedent, ACTIONS 129), (sym_string_start, ACTIONS 97)]"

definition parse_table_20 :: "(nat \<times> nat) list" where "parse_table_20 = [
    (sym__statement, STATE 925), (sym__simple_statements, STATE 925),
    (sym_import_statement, STATE 11814), (sym_future_import_statement, STATE 11814),
    (sym_import_from_statement, STATE 11814), (sym_print_statement, STATE 11814),
    (sym_assert_statement, STATE 11814), (sym_comptime_assert_statement, STATE 11814),
    (sym_expression_statement, STATE 11814), (sym_tuple_expression, STATE 12425),
    (sym_named_expression, STATE 7969), (sym__named_expression_lhs, STATE 12752),
    (sym_return_statement, STATE 11814), (sym_delete_statement, STATE 11814),
    (sym_raise_statement, STATE 11814), (sym_pass_statement, STATE 11814),
    (sym_break_statement, STATE 11814), (sym_continue_statement, STATE 11814),
    (sym_extension_definition, STATE 925), (sym_mlir_region, STATE 925),
    (sym_comptime_statement, STATE 925), (sym_if_statement, STATE 925),
    (sym_match_statement, STATE 925), (sym_for_statement, STATE 925),
    (sym_while_statement, STATE 925), (sym_try_statement, STATE 925),
    (sym_with_statement, STATE 925), (sym_function_definition, STATE 925),
    (sym_global_statement, STATE 11814), (sym_nonlocal_statement, STATE 11814),
    (sym_exec_statement, STATE 11814), (sym_type_alias_statement, STATE 11814),
    (sym_parameterized_alias_statement, STATE 11814), (sym_class_definition, STATE 925),
    (sym_trait_definition, STATE 925), (sym_decorated_definition, STATE 925),
    (sym_decorator, STATE 3670), (sym_block, STATE 4792), (sym_pattern, STATE 8086),
    (sym_tuple_pattern, STATE 8101), (sym_list_pattern, STATE 8101),
    (sym_list_splat_pattern, STATE 6819), (sym_as_pattern, STATE 7969),
    (sym_expression, STATE 9883), (sym_primary_expression, STATE 7326),
    (sym_comptime_expression, STATE 7017), (sym_transfer_expression, STATE 7017),
    (sym_not_operator, STATE 7969), (sym_boolean_operator, STATE 7969),
    (sym_binary_operator, STATE 7017), (sym_unary_operator, STATE 7017),
    (sym_comparison_operator, STATE 7969), (sym_lambda, STATE 7969),
    (sym_assignment, STATE 12425), (sym_augmented_assignment, STATE 12425),
    (sym_pattern_list, STATE 8578), (sym_yield, STATE 12425), (sym_attribute, STATE 6836),
    (sym_subscript, STATE 6838), (sym_call, STATE 6845), (sym_mlir_type, STATE 7017),
    (sym_list, STATE 7017), (sym_set, STATE 7017), (sym_tuple, STATE 7017),
    (sym_dictionary, STATE 7017), (sym_struct_literal, STATE 7017),
    (sym_list_comprehension, STATE 7017), (sym_dictionary_comprehension, STATE 7017),
    (sym_set_comprehension, STATE 7017), (sym_generator_expression, STATE 7017),
    (sym_parenthesized_expression, STATE 7017), (sym_conditional_expression, STATE 7969),
    (sym_concatenated_string, STATE 7017), (sym_string, STATE 6751), (sym_await, STATE 7017),
    (aux_sym_module_repeat1, STATE 925), (aux_sym_decorated_definition_repeat1, STATE 3670),
    (sym_identifier, ACTIONS 9), (anon_sym_import, ACTIONS 11), (anon_sym_from, ACTIONS 13),
    (anon_sym_LPAREN, ACTIONS 15), (anon_sym_STAR, ACTIONS 17), (anon_sym_print, ACTIONS 19),
    (anon_sym_comptime, ACTIONS 99), (anon_sym_assert, ACTIONS 23),
    (anon_sym___comptime_assert, ACTIONS 25), (anon_sym_return, ACTIONS 27),
    (anon_sym_del, ACTIONS 29), (anon_sym_raise, ACTIONS 31), (anon_sym_pass, ACTIONS 33),
    (anon_sym_break, ACTIONS 35), (anon_sym_continue, ACTIONS 37),
    (anon_sym___extension, ACTIONS 101), (anon_sym___mlir_region, ACTIONS 103),
    (anon_sym_if, ACTIONS 105), (anon_sym_match, ACTIONS 107), (anon_sym_async, ACTIONS 109),
    (anon_sym_for, ACTIONS 111), (anon_sym_while, ACTIONS 113), (anon_sym_try, ACTIONS 115),
    (anon_sym_with, ACTIONS 117), (anon_sym_def, ACTIONS 119), (anon_sym_fn, ACTIONS 119),
    (anon_sym_LBRACK, ACTIONS 59), (anon_sym_LBRACE, ACTIONS 61), (anon_sym_global, ACTIONS 63),
    (anon_sym_nonlocal, ACTIONS 65), (anon_sym_exec, ACTIONS 67), (anon_sym_type, ACTIONS 69),
    (anon_sym_class, ACTIONS 121), (anon_sym_struct, ACTIONS 121), (anon_sym_mut, ACTIONS 73),
    (anon_sym_out, ACTIONS 73), (anon_sym_trait, ACTIONS 123), (anon_sym_AT, ACTIONS 77),
    (anon_sym_DASH, ACTIONS 79), (anon_sym_PLUS, ACTIONS 79), (anon_sym_ref, ACTIONS 81),
    (anon_sym_var, ACTIONS 81), (anon_sym_not, ACTIONS 83), (anon_sym_TILDE, ACTIONS 79),
    (anon_sym_lambda, ACTIONS 85), (anon_sym_yield, ACTIONS 87), (sym_ellipsis, ACTIONS 89),
    (anon_sym___mlir_type, ACTIONS 91), (sym_integer, ACTIONS 93), (sym_float, ACTIONS 89),
    (anon_sym_await, ACTIONS 95), (sym_true, ACTIONS 93), (sym_false, ACTIONS 93),
    (sym_none, ACTIONS 93), (sym_comment, ACTIONS 3), (sym_line_continuation, ACTIONS 3),
    (sym__dedent, ACTIONS 129), (sym_string_start, ACTIONS 97)]"

definition parse_table_21 :: "(nat \<times> nat) list" where "parse_table_21 = [
    (sym__statement, STATE 925), (sym__simple_statements, STATE 925),
    (sym_import_statement, STATE 11814), (sym_future_import_statement, STATE 11814),
    (sym_import_from_statement, STATE 11814), (sym_print_statement, STATE 11814),
    (sym_assert_statement, STATE 11814), (sym_comptime_assert_statement, STATE 11814),
    (sym_expression_statement, STATE 11814), (sym_tuple_expression, STATE 12425),
    (sym_named_expression, STATE 7969), (sym__named_expression_lhs, STATE 12752),
    (sym_return_statement, STATE 11814), (sym_delete_statement, STATE 11814),
    (sym_raise_statement, STATE 11814), (sym_pass_statement, STATE 11814),
    (sym_break_statement, STATE 11814), (sym_continue_statement, STATE 11814),
    (sym_extension_definition, STATE 925), (sym_mlir_region, STATE 925),
    (sym_comptime_statement, STATE 925), (sym_if_statement, STATE 925),
    (sym_match_statement, STATE 925), (sym_for_statement, STATE 925),
    (sym_while_statement, STATE 925), (sym_try_statement, STATE 925),
    (sym_with_statement, STATE 925), (sym_function_definition, STATE 925),
    (sym_global_statement, STATE 11814), (sym_nonlocal_statement, STATE 11814),
    (sym_exec_statement, STATE 11814), (sym_type_alias_statement, STATE 11814),
    (sym_parameterized_alias_statement, STATE 11814), (sym_class_definition, STATE 925),
    (sym_trait_definition, STATE 925), (sym_decorated_definition, STATE 925),
    (sym_decorator, STATE 3670), (sym_block, STATE 4811), (sym_pattern, STATE 8086),
    (sym_tuple_pattern, STATE 8101), (sym_list_pattern, STATE 8101),
    (sym_list_splat_pattern, STATE 6819), (sym_as_pattern, STATE 7969),
    (sym_expression, STATE 9883), (sym_primary_expression, STATE 7326),
    (sym_comptime_expression, STATE 7017), (sym_transfer_expression, STATE 7017),
    (sym_not_operator, STATE 7969), (sym_boolean_operator, STATE 7969),
    (sym_binary_operator, STATE 7017), (sym_unary_operator, STATE 7017),
    (sym_comparison_operator, STATE 7969), (sym_lambda, STATE 7969),
    (sym_assignment, STATE 12425), (sym_augmented_assignment, STATE 12425),
    (sym_pattern_list, STATE 8578), (sym_yield, STATE 12425), (sym_attribute, STATE 6836),
    (sym_subscript, STATE 6838), (sym_call, STATE 6845), (sym_mlir_type, STATE 7017),
    (sym_list, STATE 7017), (sym_set, STATE 7017), (sym_tuple, STATE 7017),
    (sym_dictionary, STATE 7017), (sym_struct_literal, STATE 7017),
    (sym_list_comprehension, STATE 7017), (sym_dictionary_comprehension, STATE 7017),
    (sym_set_comprehension, STATE 7017), (sym_generator_expression, STATE 7017),
    (sym_parenthesized_expression, STATE 7017), (sym_conditional_expression, STATE 7969),
    (sym_concatenated_string, STATE 7017), (sym_string, STATE 6751), (sym_await, STATE 7017),
    (aux_sym_module_repeat1, STATE 925), (aux_sym_decorated_definition_repeat1, STATE 3670),
    (sym_identifier, ACTIONS 9), (anon_sym_import, ACTIONS 11), (anon_sym_from, ACTIONS 13),
    (anon_sym_LPAREN, ACTIONS 15), (anon_sym_STAR, ACTIONS 17), (anon_sym_print, ACTIONS 19),
    (anon_sym_comptime, ACTIONS 99), (anon_sym_assert, ACTIONS 23),
    (anon_sym___comptime_assert, ACTIONS 25), (anon_sym_return, ACTIONS 27),
    (anon_sym_del, ACTIONS 29), (anon_sym_raise, ACTIONS 31), (anon_sym_pass, ACTIONS 33),
    (anon_sym_break, ACTIONS 35), (anon_sym_continue, ACTIONS 37),
    (anon_sym___extension, ACTIONS 101), (anon_sym___mlir_region, ACTIONS 103),
    (anon_sym_if, ACTIONS 105), (anon_sym_match, ACTIONS 107), (anon_sym_async, ACTIONS 109),
    (anon_sym_for, ACTIONS 111), (anon_sym_while, ACTIONS 113), (anon_sym_try, ACTIONS 115),
    (anon_sym_with, ACTIONS 117), (anon_sym_def, ACTIONS 119), (anon_sym_fn, ACTIONS 119),
    (anon_sym_LBRACK, ACTIONS 59), (anon_sym_LBRACE, ACTIONS 61), (anon_sym_global, ACTIONS 63),
    (anon_sym_nonlocal, ACTIONS 65), (anon_sym_exec, ACTIONS 67), (anon_sym_type, ACTIONS 69),
    (anon_sym_class, ACTIONS 121), (anon_sym_struct, ACTIONS 121), (anon_sym_mut, ACTIONS 73),
    (anon_sym_out, ACTIONS 73), (anon_sym_trait, ACTIONS 123), (anon_sym_AT, ACTIONS 77),
    (anon_sym_DASH, ACTIONS 79), (anon_sym_PLUS, ACTIONS 79), (anon_sym_ref, ACTIONS 81),
    (anon_sym_var, ACTIONS 81), (anon_sym_not, ACTIONS 83), (anon_sym_TILDE, ACTIONS 79),
    (anon_sym_lambda, ACTIONS 85), (anon_sym_yield, ACTIONS 87), (sym_ellipsis, ACTIONS 89),
    (anon_sym___mlir_type, ACTIONS 91), (sym_integer, ACTIONS 93), (sym_float, ACTIONS 89),
    (anon_sym_await, ACTIONS 95), (sym_true, ACTIONS 93), (sym_false, ACTIONS 93),
    (sym_none, ACTIONS 93), (sym_comment, ACTIONS 3), (sym_line_continuation, ACTIONS 3),
    (sym__dedent, ACTIONS 129), (sym_string_start, ACTIONS 97)]"

definition parse_table_22 :: "(nat \<times> nat) list" where "parse_table_22 = [
    (sym__statement, STATE 925), (sym__simple_statements, STATE 925),
    (sym_import_statement, STATE 11814), (sym_future_import_statement, STATE 11814),
    (sym_import_from_statement, STATE 11814), (sym_print_statement, STATE 11814),
    (sym_assert_statement, STATE 11814), (sym_comptime_assert_statement, STATE 11814),
    (sym_expression_statement, STATE 11814), (sym_tuple_expression, STATE 12425),
    (sym_named_expression, STATE 7969), (sym__named_expression_lhs, STATE 12752),
    (sym_return_statement, STATE 11814), (sym_delete_statement, STATE 11814),
    (sym_raise_statement, STATE 11814), (sym_pass_statement, STATE 11814),
    (sym_break_statement, STATE 11814), (sym_continue_statement, STATE 11814),
    (sym_extension_definition, STATE 925), (sym_mlir_region, STATE 925),
    (sym_comptime_statement, STATE 925), (sym_if_statement, STATE 925),
    (sym_match_statement, STATE 925), (sym_for_statement, STATE 925),
    (sym_while_statement, STATE 925), (sym_try_statement, STATE 925),
    (sym_with_statement, STATE 925), (sym_function_definition, STATE 925),
    (sym_global_statement, STATE 11814), (sym_nonlocal_statement, STATE 11814),
    (sym_exec_statement, STATE 11814), (sym_type_alias_statement, STATE 11814),
    (sym_parameterized_alias_statement, STATE 11814), (sym_class_definition, STATE 925),
    (sym_trait_definition, STATE 925), (sym_decorated_definition, STATE 925),
    (sym_decorator, STATE 3670), (sym_block, STATE 4822), (sym_pattern, STATE 8086),
    (sym_tuple_pattern, STATE 8101), (sym_list_pattern, STATE 8101),
    (sym_list_splat_pattern, STATE 6819), (sym_as_pattern, STATE 7969),
    (sym_expression, STATE 9883), (sym_primary_expression, STATE 7326),
    (sym_comptime_expression, STATE 7017), (sym_transfer_expression, STATE 7017),
    (sym_not_operator, STATE 7969), (sym_boolean_operator, STATE 7969),
    (sym_binary_operator, STATE 7017), (sym_unary_operator, STATE 7017),
    (sym_comparison_operator, STATE 7969), (sym_lambda, STATE 7969),
    (sym_assignment, STATE 12425), (sym_augmented_assignment, STATE 12425),
    (sym_pattern_list, STATE 8578), (sym_yield, STATE 12425), (sym_attribute, STATE 6836),
    (sym_subscript, STATE 6838), (sym_call, STATE 6845), (sym_mlir_type, STATE 7017),
    (sym_list, STATE 7017), (sym_set, STATE 7017), (sym_tuple, STATE 7017),
    (sym_dictionary, STATE 7017), (sym_struct_literal, STATE 7017),
    (sym_list_comprehension, STATE 7017), (sym_dictionary_comprehension, STATE 7017),
    (sym_set_comprehension, STATE 7017), (sym_generator_expression, STATE 7017),
    (sym_parenthesized_expression, STATE 7017), (sym_conditional_expression, STATE 7969),
    (sym_concatenated_string, STATE 7017), (sym_string, STATE 6751), (sym_await, STATE 7017),
    (aux_sym_module_repeat1, STATE 925), (aux_sym_decorated_definition_repeat1, STATE 3670),
    (sym_identifier, ACTIONS 9), (anon_sym_import, ACTIONS 11), (anon_sym_from, ACTIONS 13),
    (anon_sym_LPAREN, ACTIONS 15), (anon_sym_STAR, ACTIONS 17), (anon_sym_print, ACTIONS 19),
    (anon_sym_comptime, ACTIONS 99), (anon_sym_assert, ACTIONS 23),
    (anon_sym___comptime_assert, ACTIONS 25), (anon_sym_return, ACTIONS 27),
    (anon_sym_del, ACTIONS 29), (anon_sym_raise, ACTIONS 31), (anon_sym_pass, ACTIONS 33),
    (anon_sym_break, ACTIONS 35), (anon_sym_continue, ACTIONS 37),
    (anon_sym___extension, ACTIONS 101), (anon_sym___mlir_region, ACTIONS 103),
    (anon_sym_if, ACTIONS 105), (anon_sym_match, ACTIONS 107), (anon_sym_async, ACTIONS 109),
    (anon_sym_for, ACTIONS 111), (anon_sym_while, ACTIONS 113), (anon_sym_try, ACTIONS 115),
    (anon_sym_with, ACTIONS 117), (anon_sym_def, ACTIONS 119), (anon_sym_fn, ACTIONS 119),
    (anon_sym_LBRACK, ACTIONS 59), (anon_sym_LBRACE, ACTIONS 61), (anon_sym_global, ACTIONS 63),
    (anon_sym_nonlocal, ACTIONS 65), (anon_sym_exec, ACTIONS 67), (anon_sym_type, ACTIONS 69),
    (anon_sym_class, ACTIONS 121), (anon_sym_struct, ACTIONS 121), (anon_sym_mut, ACTIONS 73),
    (anon_sym_out, ACTIONS 73), (anon_sym_trait, ACTIONS 123), (anon_sym_AT, ACTIONS 77),
    (anon_sym_DASH, ACTIONS 79), (anon_sym_PLUS, ACTIONS 79), (anon_sym_ref, ACTIONS 81),
    (anon_sym_var, ACTIONS 81), (anon_sym_not, ACTIONS 83), (anon_sym_TILDE, ACTIONS 79),
    (anon_sym_lambda, ACTIONS 85), (anon_sym_yield, ACTIONS 87), (sym_ellipsis, ACTIONS 89),
    (anon_sym___mlir_type, ACTIONS 91), (sym_integer, ACTIONS 93), (sym_float, ACTIONS 89),
    (anon_sym_await, ACTIONS 95), (sym_true, ACTIONS 93), (sym_false, ACTIONS 93),
    (sym_none, ACTIONS 93), (sym_comment, ACTIONS 3), (sym_line_continuation, ACTIONS 3),
    (sym__dedent, ACTIONS 129), (sym_string_start, ACTIONS 97)]"

definition parse_table_23 :: "(nat \<times> nat) list" where "parse_table_23 = [
    (sym__statement, STATE 925), (sym__simple_statements, STATE 925),
    (sym_import_statement, STATE 11814), (sym_future_import_statement, STATE 11814),
    (sym_import_from_statement, STATE 11814), (sym_print_statement, STATE 11814),
    (sym_assert_statement, STATE 11814), (sym_comptime_assert_statement, STATE 11814),
    (sym_expression_statement, STATE 11814), (sym_tuple_expression, STATE 12425),
    (sym_named_expression, STATE 7969), (sym__named_expression_lhs, STATE 12752),
    (sym_return_statement, STATE 11814), (sym_delete_statement, STATE 11814),
    (sym_raise_statement, STATE 11814), (sym_pass_statement, STATE 11814),
    (sym_break_statement, STATE 11814), (sym_continue_statement, STATE 11814),
    (sym_extension_definition, STATE 925), (sym_mlir_region, STATE 925),
    (sym_comptime_statement, STATE 925), (sym_if_statement, STATE 925),
    (sym_match_statement, STATE 925), (sym_for_statement, STATE 925),
    (sym_while_statement, STATE 925), (sym_try_statement, STATE 925),
    (sym_with_statement, STATE 925), (sym_function_definition, STATE 925),
    (sym_global_statement, STATE 11814), (sym_nonlocal_statement, STATE 11814),
    (sym_exec_statement, STATE 11814), (sym_type_alias_statement, STATE 11814),
    (sym_parameterized_alias_statement, STATE 11814), (sym_class_definition, STATE 925),
    (sym_trait_definition, STATE 925), (sym_decorated_definition, STATE 925),
    (sym_decorator, STATE 3670), (sym_block, STATE 4853), (sym_pattern, STATE 8086),
    (sym_tuple_pattern, STATE 8101), (sym_list_pattern, STATE 8101),
    (sym_list_splat_pattern, STATE 6819), (sym_as_pattern, STATE 7969),
    (sym_expression, STATE 9883), (sym_primary_expression, STATE 7326),
    (sym_comptime_expression, STATE 7017), (sym_transfer_expression, STATE 7017),
    (sym_not_operator, STATE 7969), (sym_boolean_operator, STATE 7969),
    (sym_binary_operator, STATE 7017), (sym_unary_operator, STATE 7017),
    (sym_comparison_operator, STATE 7969), (sym_lambda, STATE 7969),
    (sym_assignment, STATE 12425), (sym_augmented_assignment, STATE 12425),
    (sym_pattern_list, STATE 8578), (sym_yield, STATE 12425), (sym_attribute, STATE 6836),
    (sym_subscript, STATE 6838), (sym_call, STATE 6845), (sym_mlir_type, STATE 7017),
    (sym_list, STATE 7017), (sym_set, STATE 7017), (sym_tuple, STATE 7017),
    (sym_dictionary, STATE 7017), (sym_struct_literal, STATE 7017),
    (sym_list_comprehension, STATE 7017), (sym_dictionary_comprehension, STATE 7017),
    (sym_set_comprehension, STATE 7017), (sym_generator_expression, STATE 7017),
    (sym_parenthesized_expression, STATE 7017), (sym_conditional_expression, STATE 7969),
    (sym_concatenated_string, STATE 7017), (sym_string, STATE 6751), (sym_await, STATE 7017),
    (aux_sym_module_repeat1, STATE 925), (aux_sym_decorated_definition_repeat1, STATE 3670),
    (sym_identifier, ACTIONS 9), (anon_sym_import, ACTIONS 11), (anon_sym_from, ACTIONS 13),
    (anon_sym_LPAREN, ACTIONS 15), (anon_sym_STAR, ACTIONS 17), (anon_sym_print, ACTIONS 19),
    (anon_sym_comptime, ACTIONS 99), (anon_sym_assert, ACTIONS 23),
    (anon_sym___comptime_assert, ACTIONS 25), (anon_sym_return, ACTIONS 27),
    (anon_sym_del, ACTIONS 29), (anon_sym_raise, ACTIONS 31), (anon_sym_pass, ACTIONS 33),
    (anon_sym_break, ACTIONS 35), (anon_sym_continue, ACTIONS 37),
    (anon_sym___extension, ACTIONS 101), (anon_sym___mlir_region, ACTIONS 103),
    (anon_sym_if, ACTIONS 105), (anon_sym_match, ACTIONS 107), (anon_sym_async, ACTIONS 109),
    (anon_sym_for, ACTIONS 111), (anon_sym_while, ACTIONS 113), (anon_sym_try, ACTIONS 115),
    (anon_sym_with, ACTIONS 117), (anon_sym_def, ACTIONS 119), (anon_sym_fn, ACTIONS 119),
    (anon_sym_LBRACK, ACTIONS 59), (anon_sym_LBRACE, ACTIONS 61), (anon_sym_global, ACTIONS 63),
    (anon_sym_nonlocal, ACTIONS 65), (anon_sym_exec, ACTIONS 67), (anon_sym_type, ACTIONS 69),
    (anon_sym_class, ACTIONS 121), (anon_sym_struct, ACTIONS 121), (anon_sym_mut, ACTIONS 73),
    (anon_sym_out, ACTIONS 73), (anon_sym_trait, ACTIONS 123), (anon_sym_AT, ACTIONS 77),
    (anon_sym_DASH, ACTIONS 79), (anon_sym_PLUS, ACTIONS 79), (anon_sym_ref, ACTIONS 81),
    (anon_sym_var, ACTIONS 81), (anon_sym_not, ACTIONS 83), (anon_sym_TILDE, ACTIONS 79),
    (anon_sym_lambda, ACTIONS 85), (anon_sym_yield, ACTIONS 87), (sym_ellipsis, ACTIONS 89),
    (anon_sym___mlir_type, ACTIONS 91), (sym_integer, ACTIONS 93), (sym_float, ACTIONS 89),
    (anon_sym_await, ACTIONS 95), (sym_true, ACTIONS 93), (sym_false, ACTIONS 93),
    (sym_none, ACTIONS 93), (sym_comment, ACTIONS 3), (sym_line_continuation, ACTIONS 3),
    (sym__dedent, ACTIONS 129), (sym_string_start, ACTIONS 97)]"

definition parse_table_24 :: "(nat \<times> nat) list" where "parse_table_24 = [
    (sym__statement, STATE 925), (sym__simple_statements, STATE 925),
    (sym_import_statement, STATE 11814), (sym_future_import_statement, STATE 11814),
    (sym_import_from_statement, STATE 11814), (sym_print_statement, STATE 11814),
    (sym_assert_statement, STATE 11814), (sym_comptime_assert_statement, STATE 11814),
    (sym_expression_statement, STATE 11814), (sym_tuple_expression, STATE 12425),
    (sym_named_expression, STATE 7969), (sym__named_expression_lhs, STATE 12752),
    (sym_return_statement, STATE 11814), (sym_delete_statement, STATE 11814),
    (sym_raise_statement, STATE 11814), (sym_pass_statement, STATE 11814),
    (sym_break_statement, STATE 11814), (sym_continue_statement, STATE 11814),
    (sym_extension_definition, STATE 925), (sym_mlir_region, STATE 925),
    (sym_comptime_statement, STATE 925), (sym_if_statement, STATE 925),
    (sym_match_statement, STATE 925), (sym_for_statement, STATE 925),
    (sym_while_statement, STATE 925), (sym_try_statement, STATE 925),
    (sym_with_statement, STATE 925), (sym_function_definition, STATE 925),
    (sym_global_statement, STATE 11814), (sym_nonlocal_statement, STATE 11814),
    (sym_exec_statement, STATE 11814), (sym_type_alias_statement, STATE 11814),
    (sym_parameterized_alias_statement, STATE 11814), (sym_class_definition, STATE 925),
    (sym_trait_definition, STATE 925), (sym_decorated_definition, STATE 925),
    (sym_decorator, STATE 3670), (sym_block, STATE 4923), (sym_pattern, STATE 8086),
    (sym_tuple_pattern, STATE 8101), (sym_list_pattern, STATE 8101),
    (sym_list_splat_pattern, STATE 6819), (sym_as_pattern, STATE 7969),
    (sym_expression, STATE 9883), (sym_primary_expression, STATE 7326),
    (sym_comptime_expression, STATE 7017), (sym_transfer_expression, STATE 7017),
    (sym_not_operator, STATE 7969), (sym_boolean_operator, STATE 7969),
    (sym_binary_operator, STATE 7017), (sym_unary_operator, STATE 7017),
    (sym_comparison_operator, STATE 7969), (sym_lambda, STATE 7969),
    (sym_assignment, STATE 12425), (sym_augmented_assignment, STATE 12425),
    (sym_pattern_list, STATE 8578), (sym_yield, STATE 12425), (sym_attribute, STATE 6836),
    (sym_subscript, STATE 6838), (sym_call, STATE 6845), (sym_mlir_type, STATE 7017),
    (sym_list, STATE 7017), (sym_set, STATE 7017), (sym_tuple, STATE 7017),
    (sym_dictionary, STATE 7017), (sym_struct_literal, STATE 7017),
    (sym_list_comprehension, STATE 7017), (sym_dictionary_comprehension, STATE 7017),
    (sym_set_comprehension, STATE 7017), (sym_generator_expression, STATE 7017),
    (sym_parenthesized_expression, STATE 7017), (sym_conditional_expression, STATE 7969),
    (sym_concatenated_string, STATE 7017), (sym_string, STATE 6751), (sym_await, STATE 7017),
    (aux_sym_module_repeat1, STATE 925), (aux_sym_decorated_definition_repeat1, STATE 3670),
    (sym_identifier, ACTIONS 9), (anon_sym_import, ACTIONS 11), (anon_sym_from, ACTIONS 13),
    (anon_sym_LPAREN, ACTIONS 15), (anon_sym_STAR, ACTIONS 17), (anon_sym_print, ACTIONS 19),
    (anon_sym_comptime, ACTIONS 99), (anon_sym_assert, ACTIONS 23),
    (anon_sym___comptime_assert, ACTIONS 25), (anon_sym_return, ACTIONS 27),
    (anon_sym_del, ACTIONS 29), (anon_sym_raise, ACTIONS 31), (anon_sym_pass, ACTIONS 33),
    (anon_sym_break, ACTIONS 35), (anon_sym_continue, ACTIONS 37),
    (anon_sym___extension, ACTIONS 101), (anon_sym___mlir_region, ACTIONS 103),
    (anon_sym_if, ACTIONS 105), (anon_sym_match, ACTIONS 107), (anon_sym_async, ACTIONS 109),
    (anon_sym_for, ACTIONS 111), (anon_sym_while, ACTIONS 113), (anon_sym_try, ACTIONS 115),
    (anon_sym_with, ACTIONS 117), (anon_sym_def, ACTIONS 119), (anon_sym_fn, ACTIONS 119),
    (anon_sym_LBRACK, ACTIONS 59), (anon_sym_LBRACE, ACTIONS 61), (anon_sym_global, ACTIONS 63),
    (anon_sym_nonlocal, ACTIONS 65), (anon_sym_exec, ACTIONS 67), (anon_sym_type, ACTIONS 69),
    (anon_sym_class, ACTIONS 121), (anon_sym_struct, ACTIONS 121), (anon_sym_mut, ACTIONS 73),
    (anon_sym_out, ACTIONS 73), (anon_sym_trait, ACTIONS 123), (anon_sym_AT, ACTIONS 77),
    (anon_sym_DASH, ACTIONS 79), (anon_sym_PLUS, ACTIONS 79), (anon_sym_ref, ACTIONS 81),
    (anon_sym_var, ACTIONS 81), (anon_sym_not, ACTIONS 83), (anon_sym_TILDE, ACTIONS 79),
    (anon_sym_lambda, ACTIONS 85), (anon_sym_yield, ACTIONS 87), (sym_ellipsis, ACTIONS 89),
    (anon_sym___mlir_type, ACTIONS 91), (sym_integer, ACTIONS 93), (sym_float, ACTIONS 89),
    (anon_sym_await, ACTIONS 95), (sym_true, ACTIONS 93), (sym_false, ACTIONS 93),
    (sym_none, ACTIONS 93), (sym_comment, ACTIONS 3), (sym_line_continuation, ACTIONS 3),
    (sym__dedent, ACTIONS 129), (sym_string_start, ACTIONS 97)]"

definition parse_table_25 :: "(nat \<times> nat) list" where "parse_table_25 = [
    (sym__statement, STATE 925), (sym__simple_statements, STATE 925),
    (sym_import_statement, STATE 11814), (sym_future_import_statement, STATE 11814),
    (sym_import_from_statement, STATE 11814), (sym_print_statement, STATE 11814),
    (sym_assert_statement, STATE 11814), (sym_comptime_assert_statement, STATE 11814),
    (sym_expression_statement, STATE 11814), (sym_tuple_expression, STATE 12425),
    (sym_named_expression, STATE 7969), (sym__named_expression_lhs, STATE 12752),
    (sym_return_statement, STATE 11814), (sym_delete_statement, STATE 11814),
    (sym_raise_statement, STATE 11814), (sym_pass_statement, STATE 11814),
    (sym_break_statement, STATE 11814), (sym_continue_statement, STATE 11814),
    (sym_extension_definition, STATE 925), (sym_mlir_region, STATE 925),
    (sym_comptime_statement, STATE 925), (sym_if_statement, STATE 925),
    (sym_match_statement, STATE 925), (sym_for_statement, STATE 925),
    (sym_while_statement, STATE 925), (sym_try_statement, STATE 925),
    (sym_with_statement, STATE 925), (sym_function_definition, STATE 925),
    (sym_global_statement, STATE 11814), (sym_nonlocal_statement, STATE 11814),
    (sym_exec_statement, STATE 11814), (sym_type_alias_statement, STATE 11814),
    (sym_parameterized_alias_statement, STATE 11814), (sym_class_definition, STATE 925),
    (sym_trait_definition, STATE 925), (sym_decorated_definition, STATE 925),
    (sym_decorator, STATE 3670), (sym_block, STATE 4308), (sym_pattern, STATE 8086),
    (sym_tuple_pattern, STATE 8101), (sym_list_pattern, STATE 8101),
    (sym_list_splat_pattern, STATE 6819), (sym_as_pattern, STATE 7969),
    (sym_expression, STATE 9883), (sym_primary_expression, STATE 7326),
    (sym_comptime_expression, STATE 7017), (sym_transfer_expression, STATE 7017),
    (sym_not_operator, STATE 7969), (sym_boolean_operator, STATE 7969),
    (sym_binary_operator, STATE 7017), (sym_unary_operator, STATE 7017),
    (sym_comparison_operator, STATE 7969), (sym_lambda, STATE 7969),
    (sym_assignment, STATE 12425), (sym_augmented_assignment, STATE 12425),
    (sym_pattern_list, STATE 8578), (sym_yield, STATE 12425), (sym_attribute, STATE 6836),
    (sym_subscript, STATE 6838), (sym_call, STATE 6845), (sym_mlir_type, STATE 7017),
    (sym_list, STATE 7017), (sym_set, STATE 7017), (sym_tuple, STATE 7017),
    (sym_dictionary, STATE 7017), (sym_struct_literal, STATE 7017),
    (sym_list_comprehension, STATE 7017), (sym_dictionary_comprehension, STATE 7017),
    (sym_set_comprehension, STATE 7017), (sym_generator_expression, STATE 7017),
    (sym_parenthesized_expression, STATE 7017), (sym_conditional_expression, STATE 7969),
    (sym_concatenated_string, STATE 7017), (sym_string, STATE 6751), (sym_await, STATE 7017),
    (aux_sym_module_repeat1, STATE 925), (aux_sym_decorated_definition_repeat1, STATE 3670),
    (sym_identifier, ACTIONS 9), (anon_sym_import, ACTIONS 11), (anon_sym_from, ACTIONS 13),
    (anon_sym_LPAREN, ACTIONS 15), (anon_sym_STAR, ACTIONS 17), (anon_sym_print, ACTIONS 19),
    (anon_sym_comptime, ACTIONS 99), (anon_sym_assert, ACTIONS 23),
    (anon_sym___comptime_assert, ACTIONS 25), (anon_sym_return, ACTIONS 27),
    (anon_sym_del, ACTIONS 29), (anon_sym_raise, ACTIONS 31), (anon_sym_pass, ACTIONS 33),
    (anon_sym_break, ACTIONS 35), (anon_sym_continue, ACTIONS 37),
    (anon_sym___extension, ACTIONS 101), (anon_sym___mlir_region, ACTIONS 103),
    (anon_sym_if, ACTIONS 105), (anon_sym_match, ACTIONS 107), (anon_sym_async, ACTIONS 109),
    (anon_sym_for, ACTIONS 111), (anon_sym_while, ACTIONS 113), (anon_sym_try, ACTIONS 115),
    (anon_sym_with, ACTIONS 117), (anon_sym_def, ACTIONS 119), (anon_sym_fn, ACTIONS 119),
    (anon_sym_LBRACK, ACTIONS 59), (anon_sym_LBRACE, ACTIONS 61), (anon_sym_global, ACTIONS 63),
    (anon_sym_nonlocal, ACTIONS 65), (anon_sym_exec, ACTIONS 67), (anon_sym_type, ACTIONS 69),
    (anon_sym_class, ACTIONS 121), (anon_sym_struct, ACTIONS 121), (anon_sym_mut, ACTIONS 73),
    (anon_sym_out, ACTIONS 73), (anon_sym_trait, ACTIONS 123), (anon_sym_AT, ACTIONS 77),
    (anon_sym_DASH, ACTIONS 79), (anon_sym_PLUS, ACTIONS 79), (anon_sym_ref, ACTIONS 81),
    (anon_sym_var, ACTIONS 81), (anon_sym_not, ACTIONS 83), (anon_sym_TILDE, ACTIONS 79),
    (anon_sym_lambda, ACTIONS 85), (anon_sym_yield, ACTIONS 87), (sym_ellipsis, ACTIONS 89),
    (anon_sym___mlir_type, ACTIONS 91), (sym_integer, ACTIONS 93), (sym_float, ACTIONS 89),
    (anon_sym_await, ACTIONS 95), (sym_true, ACTIONS 93), (sym_false, ACTIONS 93),
    (sym_none, ACTIONS 93), (sym_comment, ACTIONS 3), (sym_line_continuation, ACTIONS 3),
    (sym__dedent, ACTIONS 129), (sym_string_start, ACTIONS 97)]"

definition parse_table_26 :: "(nat \<times> nat) list" where "parse_table_26 = [
    (sym__statement, STATE 925), (sym__simple_statements, STATE 925),
    (sym_import_statement, STATE 11814), (sym_future_import_statement, STATE 11814),
    (sym_import_from_statement, STATE 11814), (sym_print_statement, STATE 11814),
    (sym_assert_statement, STATE 11814), (sym_comptime_assert_statement, STATE 11814),
    (sym_expression_statement, STATE 11814), (sym_tuple_expression, STATE 12425),
    (sym_named_expression, STATE 7969), (sym__named_expression_lhs, STATE 12752),
    (sym_return_statement, STATE 11814), (sym_delete_statement, STATE 11814),
    (sym_raise_statement, STATE 11814), (sym_pass_statement, STATE 11814),
    (sym_break_statement, STATE 11814), (sym_continue_statement, STATE 11814),
    (sym_extension_definition, STATE 925), (sym_mlir_region, STATE 925),
    (sym_comptime_statement, STATE 925), (sym_if_statement, STATE 925),
    (sym_match_statement, STATE 925), (sym_for_statement, STATE 925),
    (sym_while_statement, STATE 925), (sym_try_statement, STATE 925),
    (sym_with_statement, STATE 925), (sym_function_definition, STATE 925),
    (sym_global_statement, STATE 11814), (sym_nonlocal_statement, STATE 11814),
    (sym_exec_statement, STATE 11814), (sym_type_alias_statement, STATE 11814),
    (sym_parameterized_alias_statement, STATE 11814), (sym_class_definition, STATE 925),
    (sym_trait_definition, STATE 925), (sym_decorated_definition, STATE 925),
    (sym_decorator, STATE 3670), (sym_block, STATE 4286), (sym_pattern, STATE 8086),
    (sym_tuple_pattern, STATE 8101), (sym_list_pattern, STATE 8101),
    (sym_list_splat_pattern, STATE 6819), (sym_as_pattern, STATE 7969),
    (sym_expression, STATE 9883), (sym_primary_expression, STATE 7326),
    (sym_comptime_expression, STATE 7017), (sym_transfer_expression, STATE 7017),
    (sym_not_operator, STATE 7969), (sym_boolean_operator, STATE 7969),
    (sym_binary_operator, STATE 7017), (sym_unary_operator, STATE 7017),
    (sym_comparison_operator, STATE 7969), (sym_lambda, STATE 7969),
    (sym_assignment, STATE 12425), (sym_augmented_assignment, STATE 12425),
    (sym_pattern_list, STATE 8578), (sym_yield, STATE 12425), (sym_attribute, STATE 6836),
    (sym_subscript, STATE 6838), (sym_call, STATE 6845), (sym_mlir_type, STATE 7017),
    (sym_list, STATE 7017), (sym_set, STATE 7017), (sym_tuple, STATE 7017),
    (sym_dictionary, STATE 7017), (sym_struct_literal, STATE 7017),
    (sym_list_comprehension, STATE 7017), (sym_dictionary_comprehension, STATE 7017),
    (sym_set_comprehension, STATE 7017), (sym_generator_expression, STATE 7017),
    (sym_parenthesized_expression, STATE 7017), (sym_conditional_expression, STATE 7969),
    (sym_concatenated_string, STATE 7017), (sym_string, STATE 6751), (sym_await, STATE 7017),
    (aux_sym_module_repeat1, STATE 925), (aux_sym_decorated_definition_repeat1, STATE 3670),
    (sym_identifier, ACTIONS 9), (anon_sym_import, ACTIONS 11), (anon_sym_from, ACTIONS 13),
    (anon_sym_LPAREN, ACTIONS 15), (anon_sym_STAR, ACTIONS 17), (anon_sym_print, ACTIONS 19),
    (anon_sym_comptime, ACTIONS 99), (anon_sym_assert, ACTIONS 23),
    (anon_sym___comptime_assert, ACTIONS 25), (anon_sym_return, ACTIONS 27),
    (anon_sym_del, ACTIONS 29), (anon_sym_raise, ACTIONS 31), (anon_sym_pass, ACTIONS 33),
    (anon_sym_break, ACTIONS 35), (anon_sym_continue, ACTIONS 37),
    (anon_sym___extension, ACTIONS 101), (anon_sym___mlir_region, ACTIONS 103),
    (anon_sym_if, ACTIONS 105), (anon_sym_match, ACTIONS 107), (anon_sym_async, ACTIONS 109),
    (anon_sym_for, ACTIONS 111), (anon_sym_while, ACTIONS 113), (anon_sym_try, ACTIONS 115),
    (anon_sym_with, ACTIONS 117), (anon_sym_def, ACTIONS 119), (anon_sym_fn, ACTIONS 119),
    (anon_sym_LBRACK, ACTIONS 59), (anon_sym_LBRACE, ACTIONS 61), (anon_sym_global, ACTIONS 63),
    (anon_sym_nonlocal, ACTIONS 65), (anon_sym_exec, ACTIONS 67), (anon_sym_type, ACTIONS 69),
    (anon_sym_class, ACTIONS 121), (anon_sym_struct, ACTIONS 121), (anon_sym_mut, ACTIONS 73),
    (anon_sym_out, ACTIONS 73), (anon_sym_trait, ACTIONS 123), (anon_sym_AT, ACTIONS 77),
    (anon_sym_DASH, ACTIONS 79), (anon_sym_PLUS, ACTIONS 79), (anon_sym_ref, ACTIONS 81),
    (anon_sym_var, ACTIONS 81), (anon_sym_not, ACTIONS 83), (anon_sym_TILDE, ACTIONS 79),
    (anon_sym_lambda, ACTIONS 85), (anon_sym_yield, ACTIONS 87), (sym_ellipsis, ACTIONS 89),
    (anon_sym___mlir_type, ACTIONS 91), (sym_integer, ACTIONS 93), (sym_float, ACTIONS 89),
    (anon_sym_await, ACTIONS 95), (sym_true, ACTIONS 93), (sym_false, ACTIONS 93),
    (sym_none, ACTIONS 93), (sym_comment, ACTIONS 3), (sym_line_continuation, ACTIONS 3),
    (sym__dedent, ACTIONS 129), (sym_string_start, ACTIONS 97)]"

definition parse_table_27 :: "(nat \<times> nat) list" where "parse_table_27 = [
    (sym__statement, STATE 925), (sym__simple_statements, STATE 925),
    (sym_import_statement, STATE 11814), (sym_future_import_statement, STATE 11814),
    (sym_import_from_statement, STATE 11814), (sym_print_statement, STATE 11814),
    (sym_assert_statement, STATE 11814), (sym_comptime_assert_statement, STATE 11814),
    (sym_expression_statement, STATE 11814), (sym_tuple_expression, STATE 12425),
    (sym_named_expression, STATE 7969), (sym__named_expression_lhs, STATE 12752),
    (sym_return_statement, STATE 11814), (sym_delete_statement, STATE 11814),
    (sym_raise_statement, STATE 11814), (sym_pass_statement, STATE 11814),
    (sym_break_statement, STATE 11814), (sym_continue_statement, STATE 11814),
    (sym_extension_definition, STATE 925), (sym_mlir_region, STATE 925),
    (sym_comptime_statement, STATE 925), (sym_if_statement, STATE 925),
    (sym_match_statement, STATE 925), (sym_for_statement, STATE 925),
    (sym_while_statement, STATE 925), (sym_try_statement, STATE 925),
    (sym_with_statement, STATE 925), (sym_function_definition, STATE 925),
    (sym_global_statement, STATE 11814), (sym_nonlocal_statement, STATE 11814),
    (sym_exec_statement, STATE 11814), (sym_type_alias_statement, STATE 11814),
    (sym_parameterized_alias_statement, STATE 11814), (sym_class_definition, STATE 925),
    (sym_trait_definition, STATE 925), (sym_decorated_definition, STATE 925),
    (sym_decorator, STATE 3670), (sym_block, STATE 4972), (sym_pattern, STATE 8086),
    (sym_tuple_pattern, STATE 8101), (sym_list_pattern, STATE 8101),
    (sym_list_splat_pattern, STATE 6819), (sym_as_pattern, STATE 7969),
    (sym_expression, STATE 9883), (sym_primary_expression, STATE 7326),
    (sym_comptime_expression, STATE 7017), (sym_transfer_expression, STATE 7017),
    (sym_not_operator, STATE 7969), (sym_boolean_operator, STATE 7969),
    (sym_binary_operator, STATE 7017), (sym_unary_operator, STATE 7017),
    (sym_comparison_operator, STATE 7969), (sym_lambda, STATE 7969),
    (sym_assignment, STATE 12425), (sym_augmented_assignment, STATE 12425),
    (sym_pattern_list, STATE 8578), (sym_yield, STATE 12425), (sym_attribute, STATE 6836),
    (sym_subscript, STATE 6838), (sym_call, STATE 6845), (sym_mlir_type, STATE 7017),
    (sym_list, STATE 7017), (sym_set, STATE 7017), (sym_tuple, STATE 7017),
    (sym_dictionary, STATE 7017), (sym_struct_literal, STATE 7017),
    (sym_list_comprehension, STATE 7017), (sym_dictionary_comprehension, STATE 7017),
    (sym_set_comprehension, STATE 7017), (sym_generator_expression, STATE 7017),
    (sym_parenthesized_expression, STATE 7017), (sym_conditional_expression, STATE 7969),
    (sym_concatenated_string, STATE 7017), (sym_string, STATE 6751), (sym_await, STATE 7017),
    (aux_sym_module_repeat1, STATE 925), (aux_sym_decorated_definition_repeat1, STATE 3670),
    (sym_identifier, ACTIONS 9), (anon_sym_import, ACTIONS 11), (anon_sym_from, ACTIONS 13),
    (anon_sym_LPAREN, ACTIONS 15), (anon_sym_STAR, ACTIONS 17), (anon_sym_print, ACTIONS 19),
    (anon_sym_comptime, ACTIONS 99), (anon_sym_assert, ACTIONS 23),
    (anon_sym___comptime_assert, ACTIONS 25), (anon_sym_return, ACTIONS 27),
    (anon_sym_del, ACTIONS 29), (anon_sym_raise, ACTIONS 31), (anon_sym_pass, ACTIONS 33),
    (anon_sym_break, ACTIONS 35), (anon_sym_continue, ACTIONS 37),
    (anon_sym___extension, ACTIONS 101), (anon_sym___mlir_region, ACTIONS 103),
    (anon_sym_if, ACTIONS 105), (anon_sym_match, ACTIONS 107), (anon_sym_async, ACTIONS 109),
    (anon_sym_for, ACTIONS 111), (anon_sym_while, ACTIONS 113), (anon_sym_try, ACTIONS 115),
    (anon_sym_with, ACTIONS 117), (anon_sym_def, ACTIONS 119), (anon_sym_fn, ACTIONS 119),
    (anon_sym_LBRACK, ACTIONS 59), (anon_sym_LBRACE, ACTIONS 61), (anon_sym_global, ACTIONS 63),
    (anon_sym_nonlocal, ACTIONS 65), (anon_sym_exec, ACTIONS 67), (anon_sym_type, ACTIONS 69),
    (anon_sym_class, ACTIONS 121), (anon_sym_struct, ACTIONS 121), (anon_sym_mut, ACTIONS 73),
    (anon_sym_out, ACTIONS 73), (anon_sym_trait, ACTIONS 123), (anon_sym_AT, ACTIONS 77),
    (anon_sym_DASH, ACTIONS 79), (anon_sym_PLUS, ACTIONS 79), (anon_sym_ref, ACTIONS 81),
    (anon_sym_var, ACTIONS 81), (anon_sym_not, ACTIONS 83), (anon_sym_TILDE, ACTIONS 79),
    (anon_sym_lambda, ACTIONS 85), (anon_sym_yield, ACTIONS 87), (sym_ellipsis, ACTIONS 89),
    (anon_sym___mlir_type, ACTIONS 91), (sym_integer, ACTIONS 93), (sym_float, ACTIONS 89),
    (anon_sym_await, ACTIONS 95), (sym_true, ACTIONS 93), (sym_false, ACTIONS 93),
    (sym_none, ACTIONS 93), (sym_comment, ACTIONS 3), (sym_line_continuation, ACTIONS 3),
    (sym__dedent, ACTIONS 129), (sym_string_start, ACTIONS 97)]"

definition parse_table_28 :: "(nat \<times> nat) list" where "parse_table_28 = [
    (sym__statement, STATE 925), (sym__simple_statements, STATE 925),
    (sym_import_statement, STATE 11814), (sym_future_import_statement, STATE 11814),
    (sym_import_from_statement, STATE 11814), (sym_print_statement, STATE 11814),
    (sym_assert_statement, STATE 11814), (sym_comptime_assert_statement, STATE 11814),
    (sym_expression_statement, STATE 11814), (sym_tuple_expression, STATE 12425),
    (sym_named_expression, STATE 7969), (sym__named_expression_lhs, STATE 12752),
    (sym_return_statement, STATE 11814), (sym_delete_statement, STATE 11814),
    (sym_raise_statement, STATE 11814), (sym_pass_statement, STATE 11814),
    (sym_break_statement, STATE 11814), (sym_continue_statement, STATE 11814),
    (sym_extension_definition, STATE 925), (sym_mlir_region, STATE 925),
    (sym_comptime_statement, STATE 925), (sym_if_statement, STATE 925),
    (sym_match_statement, STATE 925), (sym_for_statement, STATE 925),
    (sym_while_statement, STATE 925), (sym_try_statement, STATE 925),
    (sym_with_statement, STATE 925), (sym_function_definition, STATE 925),
    (sym_global_statement, STATE 11814), (sym_nonlocal_statement, STATE 11814),
    (sym_exec_statement, STATE 11814), (sym_type_alias_statement, STATE 11814),
    (sym_parameterized_alias_statement, STATE 11814), (sym_class_definition, STATE 925),
    (sym_trait_definition, STATE 925), (sym_decorated_definition, STATE 925),
    (sym_decorator, STATE 3670), (sym_block, STATE 4979), (sym_pattern, STATE 8086),
    (sym_tuple_pattern, STATE 8101), (sym_list_pattern, STATE 8101),
    (sym_list_splat_pattern, STATE 6819), (sym_as_pattern, STATE 7969),
    (sym_expression, STATE 9883), (sym_primary_expression, STATE 7326),
    (sym_comptime_expression, STATE 7017), (sym_transfer_expression, STATE 7017),
    (sym_not_operator, STATE 7969), (sym_boolean_operator, STATE 7969),
    (sym_binary_operator, STATE 7017), (sym_unary_operator, STATE 7017),
    (sym_comparison_operator, STATE 7969), (sym_lambda, STATE 7969),
    (sym_assignment, STATE 12425), (sym_augmented_assignment, STATE 12425),
    (sym_pattern_list, STATE 8578), (sym_yield, STATE 12425), (sym_attribute, STATE 6836),
    (sym_subscript, STATE 6838), (sym_call, STATE 6845), (sym_mlir_type, STATE 7017),
    (sym_list, STATE 7017), (sym_set, STATE 7017), (sym_tuple, STATE 7017),
    (sym_dictionary, STATE 7017), (sym_struct_literal, STATE 7017),
    (sym_list_comprehension, STATE 7017), (sym_dictionary_comprehension, STATE 7017),
    (sym_set_comprehension, STATE 7017), (sym_generator_expression, STATE 7017),
    (sym_parenthesized_expression, STATE 7017), (sym_conditional_expression, STATE 7969),
    (sym_concatenated_string, STATE 7017), (sym_string, STATE 6751), (sym_await, STATE 7017),
    (aux_sym_module_repeat1, STATE 925), (aux_sym_decorated_definition_repeat1, STATE 3670),
    (sym_identifier, ACTIONS 9), (anon_sym_import, ACTIONS 11), (anon_sym_from, ACTIONS 13),
    (anon_sym_LPAREN, ACTIONS 15), (anon_sym_STAR, ACTIONS 17), (anon_sym_print, ACTIONS 19),
    (anon_sym_comptime, ACTIONS 99), (anon_sym_assert, ACTIONS 23),
    (anon_sym___comptime_assert, ACTIONS 25), (anon_sym_return, ACTIONS 27),
    (anon_sym_del, ACTIONS 29), (anon_sym_raise, ACTIONS 31), (anon_sym_pass, ACTIONS 33),
    (anon_sym_break, ACTIONS 35), (anon_sym_continue, ACTIONS 37),
    (anon_sym___extension, ACTIONS 101), (anon_sym___mlir_region, ACTIONS 103),
    (anon_sym_if, ACTIONS 105), (anon_sym_match, ACTIONS 107), (anon_sym_async, ACTIONS 109),
    (anon_sym_for, ACTIONS 111), (anon_sym_while, ACTIONS 113), (anon_sym_try, ACTIONS 115),
    (anon_sym_with, ACTIONS 117), (anon_sym_def, ACTIONS 119), (anon_sym_fn, ACTIONS 119),
    (anon_sym_LBRACK, ACTIONS 59), (anon_sym_LBRACE, ACTIONS 61), (anon_sym_global, ACTIONS 63),
    (anon_sym_nonlocal, ACTIONS 65), (anon_sym_exec, ACTIONS 67), (anon_sym_type, ACTIONS 69),
    (anon_sym_class, ACTIONS 121), (anon_sym_struct, ACTIONS 121), (anon_sym_mut, ACTIONS 73),
    (anon_sym_out, ACTIONS 73), (anon_sym_trait, ACTIONS 123), (anon_sym_AT, ACTIONS 77),
    (anon_sym_DASH, ACTIONS 79), (anon_sym_PLUS, ACTIONS 79), (anon_sym_ref, ACTIONS 81),
    (anon_sym_var, ACTIONS 81), (anon_sym_not, ACTIONS 83), (anon_sym_TILDE, ACTIONS 79),
    (anon_sym_lambda, ACTIONS 85), (anon_sym_yield, ACTIONS 87), (sym_ellipsis, ACTIONS 89),
    (anon_sym___mlir_type, ACTIONS 91), (sym_integer, ACTIONS 93), (sym_float, ACTIONS 89),
    (anon_sym_await, ACTIONS 95), (sym_true, ACTIONS 93), (sym_false, ACTIONS 93),
    (sym_none, ACTIONS 93), (sym_comment, ACTIONS 3), (sym_line_continuation, ACTIONS 3),
    (sym__dedent, ACTIONS 129), (sym_string_start, ACTIONS 97)]"

definition parse_table_29 :: "(nat \<times> nat) list" where "parse_table_29 = [
    (sym__statement, STATE 925), (sym__simple_statements, STATE 925),
    (sym_import_statement, STATE 11814), (sym_future_import_statement, STATE 11814),
    (sym_import_from_statement, STATE 11814), (sym_print_statement, STATE 11814),
    (sym_assert_statement, STATE 11814), (sym_comptime_assert_statement, STATE 11814),
    (sym_expression_statement, STATE 11814), (sym_tuple_expression, STATE 12425),
    (sym_named_expression, STATE 7969), (sym__named_expression_lhs, STATE 12752),
    (sym_return_statement, STATE 11814), (sym_delete_statement, STATE 11814),
    (sym_raise_statement, STATE 11814), (sym_pass_statement, STATE 11814),
    (sym_break_statement, STATE 11814), (sym_continue_statement, STATE 11814),
    (sym_extension_definition, STATE 925), (sym_mlir_region, STATE 925),
    (sym_comptime_statement, STATE 925), (sym_if_statement, STATE 925),
    (sym_match_statement, STATE 925), (sym_for_statement, STATE 925),
    (sym_while_statement, STATE 925), (sym_try_statement, STATE 925),
    (sym_with_statement, STATE 925), (sym_function_definition, STATE 925),
    (sym_global_statement, STATE 11814), (sym_nonlocal_statement, STATE 11814),
    (sym_exec_statement, STATE 11814), (sym_type_alias_statement, STATE 11814),
    (sym_parameterized_alias_statement, STATE 11814), (sym_class_definition, STATE 925),
    (sym_trait_definition, STATE 925), (sym_decorated_definition, STATE 925),
    (sym_decorator, STATE 3670), (sym_block, STATE 5022), (sym_pattern, STATE 8086),
    (sym_tuple_pattern, STATE 8101), (sym_list_pattern, STATE 8101),
    (sym_list_splat_pattern, STATE 6819), (sym_as_pattern, STATE 7969),
    (sym_expression, STATE 9883), (sym_primary_expression, STATE 7326),
    (sym_comptime_expression, STATE 7017), (sym_transfer_expression, STATE 7017),
    (sym_not_operator, STATE 7969), (sym_boolean_operator, STATE 7969),
    (sym_binary_operator, STATE 7017), (sym_unary_operator, STATE 7017),
    (sym_comparison_operator, STATE 7969), (sym_lambda, STATE 7969),
    (sym_assignment, STATE 12425), (sym_augmented_assignment, STATE 12425),
    (sym_pattern_list, STATE 8578), (sym_yield, STATE 12425), (sym_attribute, STATE 6836),
    (sym_subscript, STATE 6838), (sym_call, STATE 6845), (sym_mlir_type, STATE 7017),
    (sym_list, STATE 7017), (sym_set, STATE 7017), (sym_tuple, STATE 7017),
    (sym_dictionary, STATE 7017), (sym_struct_literal, STATE 7017),
    (sym_list_comprehension, STATE 7017), (sym_dictionary_comprehension, STATE 7017),
    (sym_set_comprehension, STATE 7017), (sym_generator_expression, STATE 7017),
    (sym_parenthesized_expression, STATE 7017), (sym_conditional_expression, STATE 7969),
    (sym_concatenated_string, STATE 7017), (sym_string, STATE 6751), (sym_await, STATE 7017),
    (aux_sym_module_repeat1, STATE 925), (aux_sym_decorated_definition_repeat1, STATE 3670),
    (sym_identifier, ACTIONS 9), (anon_sym_import, ACTIONS 11), (anon_sym_from, ACTIONS 13),
    (anon_sym_LPAREN, ACTIONS 15), (anon_sym_STAR, ACTIONS 17), (anon_sym_print, ACTIONS 19),
    (anon_sym_comptime, ACTIONS 99), (anon_sym_assert, ACTIONS 23),
    (anon_sym___comptime_assert, ACTIONS 25), (anon_sym_return, ACTIONS 27),
    (anon_sym_del, ACTIONS 29), (anon_sym_raise, ACTIONS 31), (anon_sym_pass, ACTIONS 33),
    (anon_sym_break, ACTIONS 35), (anon_sym_continue, ACTIONS 37),
    (anon_sym___extension, ACTIONS 101), (anon_sym___mlir_region, ACTIONS 103),
    (anon_sym_if, ACTIONS 105), (anon_sym_match, ACTIONS 107), (anon_sym_async, ACTIONS 109),
    (anon_sym_for, ACTIONS 111), (anon_sym_while, ACTIONS 113), (anon_sym_try, ACTIONS 115),
    (anon_sym_with, ACTIONS 117), (anon_sym_def, ACTIONS 119), (anon_sym_fn, ACTIONS 119),
    (anon_sym_LBRACK, ACTIONS 59), (anon_sym_LBRACE, ACTIONS 61), (anon_sym_global, ACTIONS 63),
    (anon_sym_nonlocal, ACTIONS 65), (anon_sym_exec, ACTIONS 67), (anon_sym_type, ACTIONS 69),
    (anon_sym_class, ACTIONS 121), (anon_sym_struct, ACTIONS 121), (anon_sym_mut, ACTIONS 73),
    (anon_sym_out, ACTIONS 73), (anon_sym_trait, ACTIONS 123), (anon_sym_AT, ACTIONS 77),
    (anon_sym_DASH, ACTIONS 79), (anon_sym_PLUS, ACTIONS 79), (anon_sym_ref, ACTIONS 81),
    (anon_sym_var, ACTIONS 81), (anon_sym_not, ACTIONS 83), (anon_sym_TILDE, ACTIONS 79),
    (anon_sym_lambda, ACTIONS 85), (anon_sym_yield, ACTIONS 87), (sym_ellipsis, ACTIONS 89),
    (anon_sym___mlir_type, ACTIONS 91), (sym_integer, ACTIONS 93), (sym_float, ACTIONS 89),
    (anon_sym_await, ACTIONS 95), (sym_true, ACTIONS 93), (sym_false, ACTIONS 93),
    (sym_none, ACTIONS 93), (sym_comment, ACTIONS 3), (sym_line_continuation, ACTIONS 3),
    (sym__dedent, ACTIONS 129), (sym_string_start, ACTIONS 97)]"

definition parse_table_30 :: "(nat \<times> nat) list" where "parse_table_30 = [
    (sym__statement, STATE 925), (sym__simple_statements, STATE 925),
    (sym_import_statement, STATE 11814), (sym_future_import_statement, STATE 11814),
    (sym_import_from_statement, STATE 11814), (sym_print_statement, STATE 11814),
    (sym_assert_statement, STATE 11814), (sym_comptime_assert_statement, STATE 11814),
    (sym_expression_statement, STATE 11814), (sym_tuple_expression, STATE 12425),
    (sym_named_expression, STATE 7969), (sym__named_expression_lhs, STATE 12752),
    (sym_return_statement, STATE 11814), (sym_delete_statement, STATE 11814),
    (sym_raise_statement, STATE 11814), (sym_pass_statement, STATE 11814),
    (sym_break_statement, STATE 11814), (sym_continue_statement, STATE 11814),
    (sym_extension_definition, STATE 925), (sym_mlir_region, STATE 925),
    (sym_comptime_statement, STATE 925), (sym_if_statement, STATE 925),
    (sym_match_statement, STATE 925), (sym_for_statement, STATE 925),
    (sym_while_statement, STATE 925), (sym_try_statement, STATE 925),
    (sym_with_statement, STATE 925), (sym_function_definition, STATE 925),
    (sym_global_statement, STATE 11814), (sym_nonlocal_statement, STATE 11814),
    (sym_exec_statement, STATE 11814), (sym_type_alias_statement, STATE 11814),
    (sym_parameterized_alias_statement, STATE 11814), (sym_class_definition, STATE 925),
    (sym_trait_definition, STATE 925), (sym_decorated_definition, STATE 925),
    (sym_decorator, STATE 3670), (sym_block, STATE 4270), (sym_pattern, STATE 8086),
    (sym_tuple_pattern, STATE 8101), (sym_list_pattern, STATE 8101),
    (sym_list_splat_pattern, STATE 6819), (sym_as_pattern, STATE 7969),
    (sym_expression, STATE 9883), (sym_primary_expression, STATE 7326),
    (sym_comptime_expression, STATE 7017), (sym_transfer_expression, STATE 7017),
    (sym_not_operator, STATE 7969), (sym_boolean_operator, STATE 7969),
    (sym_binary_operator, STATE 7017), (sym_unary_operator, STATE 7017),
    (sym_comparison_operator, STATE 7969), (sym_lambda, STATE 7969),
    (sym_assignment, STATE 12425), (sym_augmented_assignment, STATE 12425),
    (sym_pattern_list, STATE 8578), (sym_yield, STATE 12425), (sym_attribute, STATE 6836),
    (sym_subscript, STATE 6838), (sym_call, STATE 6845), (sym_mlir_type, STATE 7017),
    (sym_list, STATE 7017), (sym_set, STATE 7017), (sym_tuple, STATE 7017),
    (sym_dictionary, STATE 7017), (sym_struct_literal, STATE 7017),
    (sym_list_comprehension, STATE 7017), (sym_dictionary_comprehension, STATE 7017),
    (sym_set_comprehension, STATE 7017), (sym_generator_expression, STATE 7017),
    (sym_parenthesized_expression, STATE 7017), (sym_conditional_expression, STATE 7969),
    (sym_concatenated_string, STATE 7017), (sym_string, STATE 6751), (sym_await, STATE 7017),
    (aux_sym_module_repeat1, STATE 925), (aux_sym_decorated_definition_repeat1, STATE 3670),
    (sym_identifier, ACTIONS 9), (anon_sym_import, ACTIONS 11), (anon_sym_from, ACTIONS 13),
    (anon_sym_LPAREN, ACTIONS 15), (anon_sym_STAR, ACTIONS 17), (anon_sym_print, ACTIONS 19),
    (anon_sym_comptime, ACTIONS 99), (anon_sym_assert, ACTIONS 23),
    (anon_sym___comptime_assert, ACTIONS 25), (anon_sym_return, ACTIONS 27),
    (anon_sym_del, ACTIONS 29), (anon_sym_raise, ACTIONS 31), (anon_sym_pass, ACTIONS 33),
    (anon_sym_break, ACTIONS 35), (anon_sym_continue, ACTIONS 37),
    (anon_sym___extension, ACTIONS 101), (anon_sym___mlir_region, ACTIONS 103),
    (anon_sym_if, ACTIONS 105), (anon_sym_match, ACTIONS 107), (anon_sym_async, ACTIONS 109),
    (anon_sym_for, ACTIONS 111), (anon_sym_while, ACTIONS 113), (anon_sym_try, ACTIONS 115),
    (anon_sym_with, ACTIONS 117), (anon_sym_def, ACTIONS 119), (anon_sym_fn, ACTIONS 119),
    (anon_sym_LBRACK, ACTIONS 59), (anon_sym_LBRACE, ACTIONS 61), (anon_sym_global, ACTIONS 63),
    (anon_sym_nonlocal, ACTIONS 65), (anon_sym_exec, ACTIONS 67), (anon_sym_type, ACTIONS 69),
    (anon_sym_class, ACTIONS 121), (anon_sym_struct, ACTIONS 121), (anon_sym_mut, ACTIONS 73),
    (anon_sym_out, ACTIONS 73), (anon_sym_trait, ACTIONS 123), (anon_sym_AT, ACTIONS 77),
    (anon_sym_DASH, ACTIONS 79), (anon_sym_PLUS, ACTIONS 79), (anon_sym_ref, ACTIONS 81),
    (anon_sym_var, ACTIONS 81), (anon_sym_not, ACTIONS 83), (anon_sym_TILDE, ACTIONS 79),
    (anon_sym_lambda, ACTIONS 85), (anon_sym_yield, ACTIONS 87), (sym_ellipsis, ACTIONS 89),
    (anon_sym___mlir_type, ACTIONS 91), (sym_integer, ACTIONS 93), (sym_float, ACTIONS 89),
    (anon_sym_await, ACTIONS 95), (sym_true, ACTIONS 93), (sym_false, ACTIONS 93),
    (sym_none, ACTIONS 93), (sym_comment, ACTIONS 3), (sym_line_continuation, ACTIONS 3),
    (sym__dedent, ACTIONS 129), (sym_string_start, ACTIONS 97)]"

definition parse_table_31 :: "(nat \<times> nat) list" where "parse_table_31 = [
    (sym__statement, STATE 926), (sym__simple_statements, STATE 926),
    (sym_import_statement, STATE 11814), (sym_future_import_statement, STATE 11814),
    (sym_import_from_statement, STATE 11814), (sym_print_statement, STATE 11814),
    (sym_assert_statement, STATE 11814), (sym_comptime_assert_statement, STATE 11814),
    (sym_expression_statement, STATE 11814), (sym_tuple_expression, STATE 12425),
    (sym_named_expression, STATE 7969), (sym__named_expression_lhs, STATE 12752),
    (sym_return_statement, STATE 11814), (sym_delete_statement, STATE 11814),
    (sym_raise_statement, STATE 11814), (sym_pass_statement, STATE 11814),
    (sym_break_statement, STATE 11814), (sym_continue_statement, STATE 11814),
    (sym_extension_definition, STATE 926), (sym_mlir_region, STATE 926),
    (sym_comptime_statement, STATE 926), (sym_if_statement, STATE 926),
    (sym_match_statement, STATE 926), (sym_for_statement, STATE 926),
    (sym_while_statement, STATE 926), (sym_try_statement, STATE 926),
    (sym_with_statement, STATE 926), (sym_function_definition, STATE 926),
    (sym_global_statement, STATE 11814), (sym_nonlocal_statement, STATE 11814),
    (sym_exec_statement, STATE 11814), (sym_type_alias_statement, STATE 11814),
    (sym_parameterized_alias_statement, STATE 11814), (sym_class_definition, STATE 926),
    (sym_trait_definition, STATE 926), (sym_decorated_definition, STATE 926),
    (sym_decorator, STATE 3670), (sym_block, STATE 4271), (sym_pattern, STATE 8086),
    (sym_tuple_pattern, STATE 8101), (sym_list_pattern, STATE 8101),
    (sym_list_splat_pattern, STATE 6819), (sym_as_pattern, STATE 7969),
    (sym_expression, STATE 9883), (sym_primary_expression, STATE 7326),
    (sym_comptime_expression, STATE 7017), (sym_transfer_expression, STATE 7017),
    (sym_not_operator, STATE 7969), (sym_boolean_operator, STATE 7969),
    (sym_binary_operator, STATE 7017), (sym_unary_operator, STATE 7017),
    (sym_comparison_operator, STATE 7969), (sym_lambda, STATE 7969),
    (sym_assignment, STATE 12425), (sym_augmented_assignment, STATE 12425),
    (sym_pattern_list, STATE 8578), (sym_yield, STATE 12425), (sym_attribute, STATE 6836),
    (sym_subscript, STATE 6838), (sym_call, STATE 6845), (sym_mlir_type, STATE 7017),
    (sym_list, STATE 7017), (sym_set, STATE 7017), (sym_tuple, STATE 7017),
    (sym_dictionary, STATE 7017), (sym_struct_literal, STATE 7017),
    (sym_list_comprehension, STATE 7017), (sym_dictionary_comprehension, STATE 7017),
    (sym_set_comprehension, STATE 7017), (sym_generator_expression, STATE 7017),
    (sym_parenthesized_expression, STATE 7017), (sym_conditional_expression, STATE 7969),
    (sym_concatenated_string, STATE 7017), (sym_string, STATE 6751), (sym_await, STATE 7017),
    (aux_sym_module_repeat1, STATE 926), (aux_sym_decorated_definition_repeat1, STATE 3670),
    (sym_identifier, ACTIONS 9), (anon_sym_import, ACTIONS 11), (anon_sym_from, ACTIONS 13),
    (anon_sym_LPAREN, ACTIONS 15), (anon_sym_STAR, ACTIONS 17), (anon_sym_print, ACTIONS 19),
    (anon_sym_comptime, ACTIONS 99), (anon_sym_assert, ACTIONS 23),
    (anon_sym___comptime_assert, ACTIONS 25), (anon_sym_return, ACTIONS 27),
    (anon_sym_del, ACTIONS 29), (anon_sym_raise, ACTIONS 31), (anon_sym_pass, ACTIONS 33),
    (anon_sym_break, ACTIONS 35), (anon_sym_continue, ACTIONS 37),
    (anon_sym___extension, ACTIONS 101), (anon_sym___mlir_region, ACTIONS 103),
    (anon_sym_if, ACTIONS 105), (anon_sym_match, ACTIONS 107), (anon_sym_async, ACTIONS 109),
    (anon_sym_for, ACTIONS 111), (anon_sym_while, ACTIONS 113), (anon_sym_try, ACTIONS 115),
    (anon_sym_with, ACTIONS 117), (anon_sym_def, ACTIONS 119), (anon_sym_fn, ACTIONS 119),
    (anon_sym_LBRACK, ACTIONS 59), (anon_sym_LBRACE, ACTIONS 61), (anon_sym_global, ACTIONS 63),
    (anon_sym_nonlocal, ACTIONS 65), (anon_sym_exec, ACTIONS 67), (anon_sym_type, ACTIONS 69),
    (anon_sym_class, ACTIONS 121), (anon_sym_struct, ACTIONS 121), (anon_sym_mut, ACTIONS 73),
    (anon_sym_out, ACTIONS 73), (anon_sym_trait, ACTIONS 123), (anon_sym_AT, ACTIONS 77),
    (anon_sym_DASH, ACTIONS 79), (anon_sym_PLUS, ACTIONS 79), (anon_sym_ref, ACTIONS 81),
    (anon_sym_var, ACTIONS 81), (anon_sym_not, ACTIONS 83), (anon_sym_TILDE, ACTIONS 79),
    (anon_sym_lambda, ACTIONS 85), (anon_sym_yield, ACTIONS 87), (sym_ellipsis, ACTIONS 89),
    (anon_sym___mlir_type, ACTIONS 91), (sym_integer, ACTIONS 93), (sym_float, ACTIONS 89),
    (anon_sym_await, ACTIONS 95), (sym_true, ACTIONS 93), (sym_false, ACTIONS 93),
    (sym_none, ACTIONS 93), (sym_comment, ACTIONS 3), (sym_line_continuation, ACTIONS 3),
    (sym__dedent, ACTIONS 131), (sym_string_start, ACTIONS 97)]"

definition parse_table_32 :: "(nat \<times> nat) list" where "parse_table_32 = [
    (sym__statement, STATE 925), (sym__simple_statements, STATE 925),
    (sym_import_statement, STATE 11814), (sym_future_import_statement, STATE 11814),
    (sym_import_from_statement, STATE 11814), (sym_print_statement, STATE 11814),
    (sym_assert_statement, STATE 11814), (sym_comptime_assert_statement, STATE 11814),
    (sym_expression_statement, STATE 11814), (sym_tuple_expression, STATE 12425),
    (sym_named_expression, STATE 7969), (sym__named_expression_lhs, STATE 12752),
    (sym_return_statement, STATE 11814), (sym_delete_statement, STATE 11814),
    (sym_raise_statement, STATE 11814), (sym_pass_statement, STATE 11814),
    (sym_break_statement, STATE 11814), (sym_continue_statement, STATE 11814),
    (sym_extension_definition, STATE 925), (sym_mlir_region, STATE 925),
    (sym_comptime_statement, STATE 925), (sym_if_statement, STATE 925),
    (sym_match_statement, STATE 925), (sym_for_statement, STATE 925),
    (sym_while_statement, STATE 925), (sym_try_statement, STATE 925),
    (sym_with_statement, STATE 925), (sym_function_definition, STATE 925),
    (sym_global_statement, STATE 11814), (sym_nonlocal_statement, STATE 11814),
    (sym_exec_statement, STATE 11814), (sym_type_alias_statement, STATE 11814),
    (sym_parameterized_alias_statement, STATE 11814), (sym_class_definition, STATE 925),
    (sym_trait_definition, STATE 925), (sym_decorated_definition, STATE 925),
    (sym_decorator, STATE 3670), (sym_block, STATE 5065), (sym_pattern, STATE 8086),
    (sym_tuple_pattern, STATE 8101), (sym_list_pattern, STATE 8101),
    (sym_list_splat_pattern, STATE 6819), (sym_as_pattern, STATE 7969),
    (sym_expression, STATE 9883), (sym_primary_expression, STATE 7326),
    (sym_comptime_expression, STATE 7017), (sym_transfer_expression, STATE 7017),
    (sym_not_operator, STATE 7969), (sym_boolean_operator, STATE 7969),
    (sym_binary_operator, STATE 7017), (sym_unary_operator, STATE 7017),
    (sym_comparison_operator, STATE 7969), (sym_lambda, STATE 7969),
    (sym_assignment, STATE 12425), (sym_augmented_assignment, STATE 12425),
    (sym_pattern_list, STATE 8578), (sym_yield, STATE 12425), (sym_attribute, STATE 6836),
    (sym_subscript, STATE 6838), (sym_call, STATE 6845), (sym_mlir_type, STATE 7017),
    (sym_list, STATE 7017), (sym_set, STATE 7017), (sym_tuple, STATE 7017),
    (sym_dictionary, STATE 7017), (sym_struct_literal, STATE 7017),
    (sym_list_comprehension, STATE 7017), (sym_dictionary_comprehension, STATE 7017),
    (sym_set_comprehension, STATE 7017), (sym_generator_expression, STATE 7017),
    (sym_parenthesized_expression, STATE 7017), (sym_conditional_expression, STATE 7969),
    (sym_concatenated_string, STATE 7017), (sym_string, STATE 6751), (sym_await, STATE 7017),
    (aux_sym_module_repeat1, STATE 925), (aux_sym_decorated_definition_repeat1, STATE 3670),
    (sym_identifier, ACTIONS 9), (anon_sym_import, ACTIONS 11), (anon_sym_from, ACTIONS 13),
    (anon_sym_LPAREN, ACTIONS 15), (anon_sym_STAR, ACTIONS 17), (anon_sym_print, ACTIONS 19),
    (anon_sym_comptime, ACTIONS 99), (anon_sym_assert, ACTIONS 23),
    (anon_sym___comptime_assert, ACTIONS 25), (anon_sym_return, ACTIONS 27),
    (anon_sym_del, ACTIONS 29), (anon_sym_raise, ACTIONS 31), (anon_sym_pass, ACTIONS 33),
    (anon_sym_break, ACTIONS 35), (anon_sym_continue, ACTIONS 37),
    (anon_sym___extension, ACTIONS 101), (anon_sym___mlir_region, ACTIONS 103),
    (anon_sym_if, ACTIONS 105), (anon_sym_match, ACTIONS 107), (anon_sym_async, ACTIONS 109),
    (anon_sym_for, ACTIONS 111), (anon_sym_while, ACTIONS 113), (anon_sym_try, ACTIONS 115),
    (anon_sym_with, ACTIONS 117), (anon_sym_def, ACTIONS 119), (anon_sym_fn, ACTIONS 119),
    (anon_sym_LBRACK, ACTIONS 59), (anon_sym_LBRACE, ACTIONS 61), (anon_sym_global, ACTIONS 63),
    (anon_sym_nonlocal, ACTIONS 65), (anon_sym_exec, ACTIONS 67), (anon_sym_type, ACTIONS 69),
    (anon_sym_class, ACTIONS 121), (anon_sym_struct, ACTIONS 121), (anon_sym_mut, ACTIONS 73),
    (anon_sym_out, ACTIONS 73), (anon_sym_trait, ACTIONS 123), (anon_sym_AT, ACTIONS 77),
    (anon_sym_DASH, ACTIONS 79), (anon_sym_PLUS, ACTIONS 79), (anon_sym_ref, ACTIONS 81),
    (anon_sym_var, ACTIONS 81), (anon_sym_not, ACTIONS 83), (anon_sym_TILDE, ACTIONS 79),
    (anon_sym_lambda, ACTIONS 85), (anon_sym_yield, ACTIONS 87), (sym_ellipsis, ACTIONS 89),
    (anon_sym___mlir_type, ACTIONS 91), (sym_integer, ACTIONS 93), (sym_float, ACTIONS 89),
    (anon_sym_await, ACTIONS 95), (sym_true, ACTIONS 93), (sym_false, ACTIONS 93),
    (sym_none, ACTIONS 93), (sym_comment, ACTIONS 3), (sym_line_continuation, ACTIONS 3),
    (sym__dedent, ACTIONS 129), (sym_string_start, ACTIONS 97)]"

definition parse_table_33 :: "(nat \<times> nat) list" where "parse_table_33 = [
    (sym__statement, STATE 925), (sym__simple_statements, STATE 925),
    (sym_import_statement, STATE 11814), (sym_future_import_statement, STATE 11814),
    (sym_import_from_statement, STATE 11814), (sym_print_statement, STATE 11814),
    (sym_assert_statement, STATE 11814), (sym_comptime_assert_statement, STATE 11814),
    (sym_expression_statement, STATE 11814), (sym_tuple_expression, STATE 12425),
    (sym_named_expression, STATE 7969), (sym__named_expression_lhs, STATE 12752),
    (sym_return_statement, STATE 11814), (sym_delete_statement, STATE 11814),
    (sym_raise_statement, STATE 11814), (sym_pass_statement, STATE 11814),
    (sym_break_statement, STATE 11814), (sym_continue_statement, STATE 11814),
    (sym_extension_definition, STATE 925), (sym_mlir_region, STATE 925),
    (sym_comptime_statement, STATE 925), (sym_if_statement, STATE 925),
    (sym_match_statement, STATE 925), (sym_for_statement, STATE 925),
    (sym_while_statement, STATE 925), (sym_try_statement, STATE 925),
    (sym_with_statement, STATE 925), (sym_function_definition, STATE 925),
    (sym_global_statement, STATE 11814), (sym_nonlocal_statement, STATE 11814),
    (sym_exec_statement, STATE 11814), (sym_type_alias_statement, STATE 11814),
    (sym_parameterized_alias_statement, STATE 11814), (sym_class_definition, STATE 925),
    (sym_trait_definition, STATE 925), (sym_decorated_definition, STATE 925),
    (sym_decorator, STATE 3670), (sym_block, STATE 5070), (sym_pattern, STATE 8086),
    (sym_tuple_pattern, STATE 8101), (sym_list_pattern, STATE 8101),
    (sym_list_splat_pattern, STATE 6819), (sym_as_pattern, STATE 7969),
    (sym_expression, STATE 9883), (sym_primary_expression, STATE 7326),
    (sym_comptime_expression, STATE 7017), (sym_transfer_expression, STATE 7017),
    (sym_not_operator, STATE 7969), (sym_boolean_operator, STATE 7969),
    (sym_binary_operator, STATE 7017), (sym_unary_operator, STATE 7017),
    (sym_comparison_operator, STATE 7969), (sym_lambda, STATE 7969),
    (sym_assignment, STATE 12425), (sym_augmented_assignment, STATE 12425),
    (sym_pattern_list, STATE 8578), (sym_yield, STATE 12425), (sym_attribute, STATE 6836),
    (sym_subscript, STATE 6838), (sym_call, STATE 6845), (sym_mlir_type, STATE 7017),
    (sym_list, STATE 7017), (sym_set, STATE 7017), (sym_tuple, STATE 7017),
    (sym_dictionary, STATE 7017), (sym_struct_literal, STATE 7017),
    (sym_list_comprehension, STATE 7017), (sym_dictionary_comprehension, STATE 7017),
    (sym_set_comprehension, STATE 7017), (sym_generator_expression, STATE 7017),
    (sym_parenthesized_expression, STATE 7017), (sym_conditional_expression, STATE 7969),
    (sym_concatenated_string, STATE 7017), (sym_string, STATE 6751), (sym_await, STATE 7017),
    (aux_sym_module_repeat1, STATE 925), (aux_sym_decorated_definition_repeat1, STATE 3670),
    (sym_identifier, ACTIONS 9), (anon_sym_import, ACTIONS 11), (anon_sym_from, ACTIONS 13),
    (anon_sym_LPAREN, ACTIONS 15), (anon_sym_STAR, ACTIONS 17), (anon_sym_print, ACTIONS 19),
    (anon_sym_comptime, ACTIONS 99), (anon_sym_assert, ACTIONS 23),
    (anon_sym___comptime_assert, ACTIONS 25), (anon_sym_return, ACTIONS 27),
    (anon_sym_del, ACTIONS 29), (anon_sym_raise, ACTIONS 31), (anon_sym_pass, ACTIONS 33),
    (anon_sym_break, ACTIONS 35), (anon_sym_continue, ACTIONS 37),
    (anon_sym___extension, ACTIONS 101), (anon_sym___mlir_region, ACTIONS 103),
    (anon_sym_if, ACTIONS 105), (anon_sym_match, ACTIONS 107), (anon_sym_async, ACTIONS 109),
    (anon_sym_for, ACTIONS 111), (anon_sym_while, ACTIONS 113), (anon_sym_try, ACTIONS 115),
    (anon_sym_with, ACTIONS 117), (anon_sym_def, ACTIONS 119), (anon_sym_fn, ACTIONS 119),
    (anon_sym_LBRACK, ACTIONS 59), (anon_sym_LBRACE, ACTIONS 61), (anon_sym_global, ACTIONS 63),
    (anon_sym_nonlocal, ACTIONS 65), (anon_sym_exec, ACTIONS 67), (anon_sym_type, ACTIONS 69),
    (anon_sym_class, ACTIONS 121), (anon_sym_struct, ACTIONS 121), (anon_sym_mut, ACTIONS 73),
    (anon_sym_out, ACTIONS 73), (anon_sym_trait, ACTIONS 123), (anon_sym_AT, ACTIONS 77),
    (anon_sym_DASH, ACTIONS 79), (anon_sym_PLUS, ACTIONS 79), (anon_sym_ref, ACTIONS 81),
    (anon_sym_var, ACTIONS 81), (anon_sym_not, ACTIONS 83), (anon_sym_TILDE, ACTIONS 79),
    (anon_sym_lambda, ACTIONS 85), (anon_sym_yield, ACTIONS 87), (sym_ellipsis, ACTIONS 89),
    (anon_sym___mlir_type, ACTIONS 91), (sym_integer, ACTIONS 93), (sym_float, ACTIONS 89),
    (anon_sym_await, ACTIONS 95), (sym_true, ACTIONS 93), (sym_false, ACTIONS 93),
    (sym_none, ACTIONS 93), (sym_comment, ACTIONS 3), (sym_line_continuation, ACTIONS 3),
    (sym__dedent, ACTIONS 129), (sym_string_start, ACTIONS 97)]"

definition parse_table_34 :: "(nat \<times> nat) list" where "parse_table_34 = [
    (sym__statement, STATE 925), (sym__simple_statements, STATE 925),
    (sym_import_statement, STATE 11814), (sym_future_import_statement, STATE 11814),
    (sym_import_from_statement, STATE 11814), (sym_print_statement, STATE 11814),
    (sym_assert_statement, STATE 11814), (sym_comptime_assert_statement, STATE 11814),
    (sym_expression_statement, STATE 11814), (sym_tuple_expression, STATE 12425),
    (sym_named_expression, STATE 7969), (sym__named_expression_lhs, STATE 12752),
    (sym_return_statement, STATE 11814), (sym_delete_statement, STATE 11814),
    (sym_raise_statement, STATE 11814), (sym_pass_statement, STATE 11814),
    (sym_break_statement, STATE 11814), (sym_continue_statement, STATE 11814),
    (sym_extension_definition, STATE 925), (sym_mlir_region, STATE 925),
    (sym_comptime_statement, STATE 925), (sym_if_statement, STATE 925),
    (sym_match_statement, STATE 925), (sym_for_statement, STATE 925),
    (sym_while_statement, STATE 925), (sym_try_statement, STATE 925),
    (sym_with_statement, STATE 925), (sym_function_definition, STATE 925),
    (sym_global_statement, STATE 11814), (sym_nonlocal_statement, STATE 11814),
    (sym_exec_statement, STATE 11814), (sym_type_alias_statement, STATE 11814),
    (sym_parameterized_alias_statement, STATE 11814), (sym_class_definition, STATE 925),
    (sym_trait_definition, STATE 925), (sym_decorated_definition, STATE 925),
    (sym_decorator, STATE 3670), (sym_block, STATE 5079), (sym_pattern, STATE 8086),
    (sym_tuple_pattern, STATE 8101), (sym_list_pattern, STATE 8101),
    (sym_list_splat_pattern, STATE 6819), (sym_as_pattern, STATE 7969),
    (sym_expression, STATE 9883), (sym_primary_expression, STATE 7326),
    (sym_comptime_expression, STATE 7017), (sym_transfer_expression, STATE 7017),
    (sym_not_operator, STATE 7969), (sym_boolean_operator, STATE 7969),
    (sym_binary_operator, STATE 7017), (sym_unary_operator, STATE 7017),
    (sym_comparison_operator, STATE 7969), (sym_lambda, STATE 7969),
    (sym_assignment, STATE 12425), (sym_augmented_assignment, STATE 12425),
    (sym_pattern_list, STATE 8578), (sym_yield, STATE 12425), (sym_attribute, STATE 6836),
    (sym_subscript, STATE 6838), (sym_call, STATE 6845), (sym_mlir_type, STATE 7017),
    (sym_list, STATE 7017), (sym_set, STATE 7017), (sym_tuple, STATE 7017),
    (sym_dictionary, STATE 7017), (sym_struct_literal, STATE 7017),
    (sym_list_comprehension, STATE 7017), (sym_dictionary_comprehension, STATE 7017),
    (sym_set_comprehension, STATE 7017), (sym_generator_expression, STATE 7017),
    (sym_parenthesized_expression, STATE 7017), (sym_conditional_expression, STATE 7969),
    (sym_concatenated_string, STATE 7017), (sym_string, STATE 6751), (sym_await, STATE 7017),
    (aux_sym_module_repeat1, STATE 925), (aux_sym_decorated_definition_repeat1, STATE 3670),
    (sym_identifier, ACTIONS 9), (anon_sym_import, ACTIONS 11), (anon_sym_from, ACTIONS 13),
    (anon_sym_LPAREN, ACTIONS 15), (anon_sym_STAR, ACTIONS 17), (anon_sym_print, ACTIONS 19),
    (anon_sym_comptime, ACTIONS 99), (anon_sym_assert, ACTIONS 23),
    (anon_sym___comptime_assert, ACTIONS 25), (anon_sym_return, ACTIONS 27),
    (anon_sym_del, ACTIONS 29), (anon_sym_raise, ACTIONS 31), (anon_sym_pass, ACTIONS 33),
    (anon_sym_break, ACTIONS 35), (anon_sym_continue, ACTIONS 37),
    (anon_sym___extension, ACTIONS 101), (anon_sym___mlir_region, ACTIONS 103),
    (anon_sym_if, ACTIONS 105), (anon_sym_match, ACTIONS 107), (anon_sym_async, ACTIONS 109),
    (anon_sym_for, ACTIONS 111), (anon_sym_while, ACTIONS 113), (anon_sym_try, ACTIONS 115),
    (anon_sym_with, ACTIONS 117), (anon_sym_def, ACTIONS 119), (anon_sym_fn, ACTIONS 119),
    (anon_sym_LBRACK, ACTIONS 59), (anon_sym_LBRACE, ACTIONS 61), (anon_sym_global, ACTIONS 63),
    (anon_sym_nonlocal, ACTIONS 65), (anon_sym_exec, ACTIONS 67), (anon_sym_type, ACTIONS 69),
    (anon_sym_class, ACTIONS 121), (anon_sym_struct, ACTIONS 121), (anon_sym_mut, ACTIONS 73),
    (anon_sym_out, ACTIONS 73), (anon_sym_trait, ACTIONS 123), (anon_sym_AT, ACTIONS 77),
    (anon_sym_DASH, ACTIONS 79), (anon_sym_PLUS, ACTIONS 79), (anon_sym_ref, ACTIONS 81),
    (anon_sym_var, ACTIONS 81), (anon_sym_not, ACTIONS 83), (anon_sym_TILDE, ACTIONS 79),
    (anon_sym_lambda, ACTIONS 85), (anon_sym_yield, ACTIONS 87), (sym_ellipsis, ACTIONS 89),
    (anon_sym___mlir_type, ACTIONS 91), (sym_integer, ACTIONS 93), (sym_float, ACTIONS 89),
    (anon_sym_await, ACTIONS 95), (sym_true, ACTIONS 93), (sym_false, ACTIONS 93),
    (sym_none, ACTIONS 93), (sym_comment, ACTIONS 3), (sym_line_continuation, ACTIONS 3),
    (sym__dedent, ACTIONS 129), (sym_string_start, ACTIONS 97)]"

definition parse_table_35 :: "(nat \<times> nat) list" where "parse_table_35 = [
    (sym__statement, STATE 925), (sym__simple_statements, STATE 925),
    (sym_import_statement, STATE 11814), (sym_future_import_statement, STATE 11814),
    (sym_import_from_statement, STATE 11814), (sym_print_statement, STATE 11814),
    (sym_assert_statement, STATE 11814), (sym_comptime_assert_statement, STATE 11814),
    (sym_expression_statement, STATE 11814), (sym_tuple_expression, STATE 12425),
    (sym_named_expression, STATE 7969), (sym__named_expression_lhs, STATE 12752),
    (sym_return_statement, STATE 11814), (sym_delete_statement, STATE 11814),
    (sym_raise_statement, STATE 11814), (sym_pass_statement, STATE 11814),
    (sym_break_statement, STATE 11814), (sym_continue_statement, STATE 11814),
    (sym_extension_definition, STATE 925), (sym_mlir_region, STATE 925),
    (sym_comptime_statement, STATE 925), (sym_if_statement, STATE 925),
    (sym_match_statement, STATE 925), (sym_for_statement, STATE 925),
    (sym_while_statement, STATE 925), (sym_try_statement, STATE 925),
    (sym_with_statement, STATE 925), (sym_function_definition, STATE 925),
    (sym_global_statement, STATE 11814), (sym_nonlocal_statement, STATE 11814),
    (sym_exec_statement, STATE 11814), (sym_type_alias_statement, STATE 11814),
    (sym_parameterized_alias_statement, STATE 11814), (sym_class_definition, STATE 925),
    (sym_trait_definition, STATE 925), (sym_decorated_definition, STATE 925),
    (sym_decorator, STATE 3670), (sym_block, STATE 5086), (sym_pattern, STATE 8086),
    (sym_tuple_pattern, STATE 8101), (sym_list_pattern, STATE 8101),
    (sym_list_splat_pattern, STATE 6819), (sym_as_pattern, STATE 7969),
    (sym_expression, STATE 9883), (sym_primary_expression, STATE 7326),
    (sym_comptime_expression, STATE 7017), (sym_transfer_expression, STATE 7017),
    (sym_not_operator, STATE 7969), (sym_boolean_operator, STATE 7969),
    (sym_binary_operator, STATE 7017), (sym_unary_operator, STATE 7017),
    (sym_comparison_operator, STATE 7969), (sym_lambda, STATE 7969),
    (sym_assignment, STATE 12425), (sym_augmented_assignment, STATE 12425),
    (sym_pattern_list, STATE 8578), (sym_yield, STATE 12425), (sym_attribute, STATE 6836),
    (sym_subscript, STATE 6838), (sym_call, STATE 6845), (sym_mlir_type, STATE 7017),
    (sym_list, STATE 7017), (sym_set, STATE 7017), (sym_tuple, STATE 7017),
    (sym_dictionary, STATE 7017), (sym_struct_literal, STATE 7017),
    (sym_list_comprehension, STATE 7017), (sym_dictionary_comprehension, STATE 7017),
    (sym_set_comprehension, STATE 7017), (sym_generator_expression, STATE 7017),
    (sym_parenthesized_expression, STATE 7017), (sym_conditional_expression, STATE 7969),
    (sym_concatenated_string, STATE 7017), (sym_string, STATE 6751), (sym_await, STATE 7017),
    (aux_sym_module_repeat1, STATE 925), (aux_sym_decorated_definition_repeat1, STATE 3670),
    (sym_identifier, ACTIONS 9), (anon_sym_import, ACTIONS 11), (anon_sym_from, ACTIONS 13),
    (anon_sym_LPAREN, ACTIONS 15), (anon_sym_STAR, ACTIONS 17), (anon_sym_print, ACTIONS 19),
    (anon_sym_comptime, ACTIONS 99), (anon_sym_assert, ACTIONS 23),
    (anon_sym___comptime_assert, ACTIONS 25), (anon_sym_return, ACTIONS 27),
    (anon_sym_del, ACTIONS 29), (anon_sym_raise, ACTIONS 31), (anon_sym_pass, ACTIONS 33),
    (anon_sym_break, ACTIONS 35), (anon_sym_continue, ACTIONS 37),
    (anon_sym___extension, ACTIONS 101), (anon_sym___mlir_region, ACTIONS 103),
    (anon_sym_if, ACTIONS 105), (anon_sym_match, ACTIONS 107), (anon_sym_async, ACTIONS 109),
    (anon_sym_for, ACTIONS 111), (anon_sym_while, ACTIONS 113), (anon_sym_try, ACTIONS 115),
    (anon_sym_with, ACTIONS 117), (anon_sym_def, ACTIONS 119), (anon_sym_fn, ACTIONS 119),
    (anon_sym_LBRACK, ACTIONS 59), (anon_sym_LBRACE, ACTIONS 61), (anon_sym_global, ACTIONS 63),
    (anon_sym_nonlocal, ACTIONS 65), (anon_sym_exec, ACTIONS 67), (anon_sym_type, ACTIONS 69),
    (anon_sym_class, ACTIONS 121), (anon_sym_struct, ACTIONS 121), (anon_sym_mut, ACTIONS 73),
    (anon_sym_out, ACTIONS 73), (anon_sym_trait, ACTIONS 123), (anon_sym_AT, ACTIONS 77),
    (anon_sym_DASH, ACTIONS 79), (anon_sym_PLUS, ACTIONS 79), (anon_sym_ref, ACTIONS 81),
    (anon_sym_var, ACTIONS 81), (anon_sym_not, ACTIONS 83), (anon_sym_TILDE, ACTIONS 79),
    (anon_sym_lambda, ACTIONS 85), (anon_sym_yield, ACTIONS 87), (sym_ellipsis, ACTIONS 89),
    (anon_sym___mlir_type, ACTIONS 91), (sym_integer, ACTIONS 93), (sym_float, ACTIONS 89),
    (anon_sym_await, ACTIONS 95), (sym_true, ACTIONS 93), (sym_false, ACTIONS 93),
    (sym_none, ACTIONS 93), (sym_comment, ACTIONS 3), (sym_line_continuation, ACTIONS 3),
    (sym__dedent, ACTIONS 129), (sym_string_start, ACTIONS 97)]"

definition parse_table_36 :: "(nat \<times> nat) list" where "parse_table_36 = [
    (sym__statement, STATE 925), (sym__simple_statements, STATE 925),
    (sym_import_statement, STATE 11814), (sym_future_import_statement, STATE 11814),
    (sym_import_from_statement, STATE 11814), (sym_print_statement, STATE 11814),
    (sym_assert_statement, STATE 11814), (sym_comptime_assert_statement, STATE 11814),
    (sym_expression_statement, STATE 11814), (sym_tuple_expression, STATE 12425),
    (sym_named_expression, STATE 7969), (sym__named_expression_lhs, STATE 12752),
    (sym_return_statement, STATE 11814), (sym_delete_statement, STATE 11814),
    (sym_raise_statement, STATE 11814), (sym_pass_statement, STATE 11814),
    (sym_break_statement, STATE 11814), (sym_continue_statement, STATE 11814),
    (sym_extension_definition, STATE 925), (sym_mlir_region, STATE 925),
    (sym_comptime_statement, STATE 925), (sym_if_statement, STATE 925),
    (sym_match_statement, STATE 925), (sym_for_statement, STATE 925),
    (sym_while_statement, STATE 925), (sym_try_statement, STATE 925),
    (sym_with_statement, STATE 925), (sym_function_definition, STATE 925),
    (sym_global_statement, STATE 11814), (sym_nonlocal_statement, STATE 11814),
    (sym_exec_statement, STATE 11814), (sym_type_alias_statement, STATE 11814),
    (sym_parameterized_alias_statement, STATE 11814), (sym_class_definition, STATE 925),
    (sym_trait_definition, STATE 925), (sym_decorated_definition, STATE 925),
    (sym_decorator, STATE 3670), (sym_block, STATE 5090), (sym_pattern, STATE 8086),
    (sym_tuple_pattern, STATE 8101), (sym_list_pattern, STATE 8101),
    (sym_list_splat_pattern, STATE 6819), (sym_as_pattern, STATE 7969),
    (sym_expression, STATE 9883), (sym_primary_expression, STATE 7326),
    (sym_comptime_expression, STATE 7017), (sym_transfer_expression, STATE 7017),
    (sym_not_operator, STATE 7969), (sym_boolean_operator, STATE 7969),
    (sym_binary_operator, STATE 7017), (sym_unary_operator, STATE 7017),
    (sym_comparison_operator, STATE 7969), (sym_lambda, STATE 7969),
    (sym_assignment, STATE 12425), (sym_augmented_assignment, STATE 12425),
    (sym_pattern_list, STATE 8578), (sym_yield, STATE 12425), (sym_attribute, STATE 6836),
    (sym_subscript, STATE 6838), (sym_call, STATE 6845), (sym_mlir_type, STATE 7017),
    (sym_list, STATE 7017), (sym_set, STATE 7017), (sym_tuple, STATE 7017),
    (sym_dictionary, STATE 7017), (sym_struct_literal, STATE 7017),
    (sym_list_comprehension, STATE 7017), (sym_dictionary_comprehension, STATE 7017),
    (sym_set_comprehension, STATE 7017), (sym_generator_expression, STATE 7017),
    (sym_parenthesized_expression, STATE 7017), (sym_conditional_expression, STATE 7969),
    (sym_concatenated_string, STATE 7017), (sym_string, STATE 6751), (sym_await, STATE 7017),
    (aux_sym_module_repeat1, STATE 925), (aux_sym_decorated_definition_repeat1, STATE 3670),
    (sym_identifier, ACTIONS 9), (anon_sym_import, ACTIONS 11), (anon_sym_from, ACTIONS 13),
    (anon_sym_LPAREN, ACTIONS 15), (anon_sym_STAR, ACTIONS 17), (anon_sym_print, ACTIONS 19),
    (anon_sym_comptime, ACTIONS 99), (anon_sym_assert, ACTIONS 23),
    (anon_sym___comptime_assert, ACTIONS 25), (anon_sym_return, ACTIONS 27),
    (anon_sym_del, ACTIONS 29), (anon_sym_raise, ACTIONS 31), (anon_sym_pass, ACTIONS 33),
    (anon_sym_break, ACTIONS 35), (anon_sym_continue, ACTIONS 37),
    (anon_sym___extension, ACTIONS 101), (anon_sym___mlir_region, ACTIONS 103),
    (anon_sym_if, ACTIONS 105), (anon_sym_match, ACTIONS 107), (anon_sym_async, ACTIONS 109),
    (anon_sym_for, ACTIONS 111), (anon_sym_while, ACTIONS 113), (anon_sym_try, ACTIONS 115),
    (anon_sym_with, ACTIONS 117), (anon_sym_def, ACTIONS 119), (anon_sym_fn, ACTIONS 119),
    (anon_sym_LBRACK, ACTIONS 59), (anon_sym_LBRACE, ACTIONS 61), (anon_sym_global, ACTIONS 63),
    (anon_sym_nonlocal, ACTIONS 65), (anon_sym_exec, ACTIONS 67), (anon_sym_type, ACTIONS 69),
    (anon_sym_class, ACTIONS 121), (anon_sym_struct, ACTIONS 121), (anon_sym_mut, ACTIONS 73),
    (anon_sym_out, ACTIONS 73), (anon_sym_trait, ACTIONS 123), (anon_sym_AT, ACTIONS 77),
    (anon_sym_DASH, ACTIONS 79), (anon_sym_PLUS, ACTIONS 79), (anon_sym_ref, ACTIONS 81),
    (anon_sym_var, ACTIONS 81), (anon_sym_not, ACTIONS 83), (anon_sym_TILDE, ACTIONS 79),
    (anon_sym_lambda, ACTIONS 85), (anon_sym_yield, ACTIONS 87), (sym_ellipsis, ACTIONS 89),
    (anon_sym___mlir_type, ACTIONS 91), (sym_integer, ACTIONS 93), (sym_float, ACTIONS 89),
    (anon_sym_await, ACTIONS 95), (sym_true, ACTIONS 93), (sym_false, ACTIONS 93),
    (sym_none, ACTIONS 93), (sym_comment, ACTIONS 3), (sym_line_continuation, ACTIONS 3),
    (sym__dedent, ACTIONS 129), (sym_string_start, ACTIONS 97)]"

definition parse_table_37 :: "(nat \<times> nat) list" where "parse_table_37 = [
    (sym__statement, STATE 925), (sym__simple_statements, STATE 925),
    (sym_import_statement, STATE 11814), (sym_future_import_statement, STATE 11814),
    (sym_import_from_statement, STATE 11814), (sym_print_statement, STATE 11814),
    (sym_assert_statement, STATE 11814), (sym_comptime_assert_statement, STATE 11814),
    (sym_expression_statement, STATE 11814), (sym_tuple_expression, STATE 12425),
    (sym_named_expression, STATE 7969), (sym__named_expression_lhs, STATE 12752),
    (sym_return_statement, STATE 11814), (sym_delete_statement, STATE 11814),
    (sym_raise_statement, STATE 11814), (sym_pass_statement, STATE 11814),
    (sym_break_statement, STATE 11814), (sym_continue_statement, STATE 11814),
    (sym_extension_definition, STATE 925), (sym_mlir_region, STATE 925),
    (sym_comptime_statement, STATE 925), (sym_if_statement, STATE 925),
    (sym_match_statement, STATE 925), (sym_for_statement, STATE 925),
    (sym_while_statement, STATE 925), (sym_try_statement, STATE 925),
    (sym_with_statement, STATE 925), (sym_function_definition, STATE 925),
    (sym_global_statement, STATE 11814), (sym_nonlocal_statement, STATE 11814),
    (sym_exec_statement, STATE 11814), (sym_type_alias_statement, STATE 11814),
    (sym_parameterized_alias_statement, STATE 11814), (sym_class_definition, STATE 925),
    (sym_trait_definition, STATE 925), (sym_decorated_definition, STATE 925),
    (sym_decorator, STATE 3670), (sym_block, STATE 5124), (sym_pattern, STATE 8086),
    (sym_tuple_pattern, STATE 8101), (sym_list_pattern, STATE 8101),
    (sym_list_splat_pattern, STATE 6819), (sym_as_pattern, STATE 7969),
    (sym_expression, STATE 9883), (sym_primary_expression, STATE 7326),
    (sym_comptime_expression, STATE 7017), (sym_transfer_expression, STATE 7017),
    (sym_not_operator, STATE 7969), (sym_boolean_operator, STATE 7969),
    (sym_binary_operator, STATE 7017), (sym_unary_operator, STATE 7017),
    (sym_comparison_operator, STATE 7969), (sym_lambda, STATE 7969),
    (sym_assignment, STATE 12425), (sym_augmented_assignment, STATE 12425),
    (sym_pattern_list, STATE 8578), (sym_yield, STATE 12425), (sym_attribute, STATE 6836),
    (sym_subscript, STATE 6838), (sym_call, STATE 6845), (sym_mlir_type, STATE 7017),
    (sym_list, STATE 7017), (sym_set, STATE 7017), (sym_tuple, STATE 7017),
    (sym_dictionary, STATE 7017), (sym_struct_literal, STATE 7017),
    (sym_list_comprehension, STATE 7017), (sym_dictionary_comprehension, STATE 7017),
    (sym_set_comprehension, STATE 7017), (sym_generator_expression, STATE 7017),
    (sym_parenthesized_expression, STATE 7017), (sym_conditional_expression, STATE 7969),
    (sym_concatenated_string, STATE 7017), (sym_string, STATE 6751), (sym_await, STATE 7017),
    (aux_sym_module_repeat1, STATE 925), (aux_sym_decorated_definition_repeat1, STATE 3670),
    (sym_identifier, ACTIONS 9), (anon_sym_import, ACTIONS 11), (anon_sym_from, ACTIONS 13),
    (anon_sym_LPAREN, ACTIONS 15), (anon_sym_STAR, ACTIONS 17), (anon_sym_print, ACTIONS 19),
    (anon_sym_comptime, ACTIONS 99), (anon_sym_assert, ACTIONS 23),
    (anon_sym___comptime_assert, ACTIONS 25), (anon_sym_return, ACTIONS 27),
    (anon_sym_del, ACTIONS 29), (anon_sym_raise, ACTIONS 31), (anon_sym_pass, ACTIONS 33),
    (anon_sym_break, ACTIONS 35), (anon_sym_continue, ACTIONS 37),
    (anon_sym___extension, ACTIONS 101), (anon_sym___mlir_region, ACTIONS 103),
    (anon_sym_if, ACTIONS 105), (anon_sym_match, ACTIONS 107), (anon_sym_async, ACTIONS 109),
    (anon_sym_for, ACTIONS 111), (anon_sym_while, ACTIONS 113), (anon_sym_try, ACTIONS 115),
    (anon_sym_with, ACTIONS 117), (anon_sym_def, ACTIONS 119), (anon_sym_fn, ACTIONS 119),
    (anon_sym_LBRACK, ACTIONS 59), (anon_sym_LBRACE, ACTIONS 61), (anon_sym_global, ACTIONS 63),
    (anon_sym_nonlocal, ACTIONS 65), (anon_sym_exec, ACTIONS 67), (anon_sym_type, ACTIONS 69),
    (anon_sym_class, ACTIONS 121), (anon_sym_struct, ACTIONS 121), (anon_sym_mut, ACTIONS 73),
    (anon_sym_out, ACTIONS 73), (anon_sym_trait, ACTIONS 123), (anon_sym_AT, ACTIONS 77),
    (anon_sym_DASH, ACTIONS 79), (anon_sym_PLUS, ACTIONS 79), (anon_sym_ref, ACTIONS 81),
    (anon_sym_var, ACTIONS 81), (anon_sym_not, ACTIONS 83), (anon_sym_TILDE, ACTIONS 79),
    (anon_sym_lambda, ACTIONS 85), (anon_sym_yield, ACTIONS 87), (sym_ellipsis, ACTIONS 89),
    (anon_sym___mlir_type, ACTIONS 91), (sym_integer, ACTIONS 93), (sym_float, ACTIONS 89),
    (anon_sym_await, ACTIONS 95), (sym_true, ACTIONS 93), (sym_false, ACTIONS 93),
    (sym_none, ACTIONS 93), (sym_comment, ACTIONS 3), (sym_line_continuation, ACTIONS 3),
    (sym__dedent, ACTIONS 129), (sym_string_start, ACTIONS 97)]"

definition parse_table_38 :: "(nat \<times> nat) list" where "parse_table_38 = [
    (sym__statement, STATE 925), (sym__simple_statements, STATE 925),
    (sym_import_statement, STATE 11814), (sym_future_import_statement, STATE 11814),
    (sym_import_from_statement, STATE 11814), (sym_print_statement, STATE 11814),
    (sym_assert_statement, STATE 11814), (sym_comptime_assert_statement, STATE 11814),
    (sym_expression_statement, STATE 11814), (sym_tuple_expression, STATE 12425),
    (sym_named_expression, STATE 7969), (sym__named_expression_lhs, STATE 12752),
    (sym_return_statement, STATE 11814), (sym_delete_statement, STATE 11814),
    (sym_raise_statement, STATE 11814), (sym_pass_statement, STATE 11814),
    (sym_break_statement, STATE 11814), (sym_continue_statement, STATE 11814),
    (sym_extension_definition, STATE 925), (sym_mlir_region, STATE 925),
    (sym_comptime_statement, STATE 925), (sym_if_statement, STATE 925),
    (sym_match_statement, STATE 925), (sym_for_statement, STATE 925),
    (sym_while_statement, STATE 925), (sym_try_statement, STATE 925),
    (sym_with_statement, STATE 925), (sym_function_definition, STATE 925),
    (sym_global_statement, STATE 11814), (sym_nonlocal_statement, STATE 11814),
    (sym_exec_statement, STATE 11814), (sym_type_alias_statement, STATE 11814),
    (sym_parameterized_alias_statement, STATE 11814), (sym_class_definition, STATE 925),
    (sym_trait_definition, STATE 925), (sym_decorated_definition, STATE 925),
    (sym_decorator, STATE 3670), (sym_block, STATE 5131), (sym_pattern, STATE 8086),
    (sym_tuple_pattern, STATE 8101), (sym_list_pattern, STATE 8101),
    (sym_list_splat_pattern, STATE 6819), (sym_as_pattern, STATE 7969),
    (sym_expression, STATE 9883), (sym_primary_expression, STATE 7326),
    (sym_comptime_expression, STATE 7017), (sym_transfer_expression, STATE 7017),
    (sym_not_operator, STATE 7969), (sym_boolean_operator, STATE 7969),
    (sym_binary_operator, STATE 7017), (sym_unary_operator, STATE 7017),
    (sym_comparison_operator, STATE 7969), (sym_lambda, STATE 7969),
    (sym_assignment, STATE 12425), (sym_augmented_assignment, STATE 12425),
    (sym_pattern_list, STATE 8578), (sym_yield, STATE 12425), (sym_attribute, STATE 6836),
    (sym_subscript, STATE 6838), (sym_call, STATE 6845), (sym_mlir_type, STATE 7017),
    (sym_list, STATE 7017), (sym_set, STATE 7017), (sym_tuple, STATE 7017),
    (sym_dictionary, STATE 7017), (sym_struct_literal, STATE 7017),
    (sym_list_comprehension, STATE 7017), (sym_dictionary_comprehension, STATE 7017),
    (sym_set_comprehension, STATE 7017), (sym_generator_expression, STATE 7017),
    (sym_parenthesized_expression, STATE 7017), (sym_conditional_expression, STATE 7969),
    (sym_concatenated_string, STATE 7017), (sym_string, STATE 6751), (sym_await, STATE 7017),
    (aux_sym_module_repeat1, STATE 925), (aux_sym_decorated_definition_repeat1, STATE 3670),
    (sym_identifier, ACTIONS 9), (anon_sym_import, ACTIONS 11), (anon_sym_from, ACTIONS 13),
    (anon_sym_LPAREN, ACTIONS 15), (anon_sym_STAR, ACTIONS 17), (anon_sym_print, ACTIONS 19),
    (anon_sym_comptime, ACTIONS 99), (anon_sym_assert, ACTIONS 23),
    (anon_sym___comptime_assert, ACTIONS 25), (anon_sym_return, ACTIONS 27),
    (anon_sym_del, ACTIONS 29), (anon_sym_raise, ACTIONS 31), (anon_sym_pass, ACTIONS 33),
    (anon_sym_break, ACTIONS 35), (anon_sym_continue, ACTIONS 37),
    (anon_sym___extension, ACTIONS 101), (anon_sym___mlir_region, ACTIONS 103),
    (anon_sym_if, ACTIONS 105), (anon_sym_match, ACTIONS 107), (anon_sym_async, ACTIONS 109),
    (anon_sym_for, ACTIONS 111), (anon_sym_while, ACTIONS 113), (anon_sym_try, ACTIONS 115),
    (anon_sym_with, ACTIONS 117), (anon_sym_def, ACTIONS 119), (anon_sym_fn, ACTIONS 119),
    (anon_sym_LBRACK, ACTIONS 59), (anon_sym_LBRACE, ACTIONS 61), (anon_sym_global, ACTIONS 63),
    (anon_sym_nonlocal, ACTIONS 65), (anon_sym_exec, ACTIONS 67), (anon_sym_type, ACTIONS 69),
    (anon_sym_class, ACTIONS 121), (anon_sym_struct, ACTIONS 121), (anon_sym_mut, ACTIONS 73),
    (anon_sym_out, ACTIONS 73), (anon_sym_trait, ACTIONS 123), (anon_sym_AT, ACTIONS 77),
    (anon_sym_DASH, ACTIONS 79), (anon_sym_PLUS, ACTIONS 79), (anon_sym_ref, ACTIONS 81),
    (anon_sym_var, ACTIONS 81), (anon_sym_not, ACTIONS 83), (anon_sym_TILDE, ACTIONS 79),
    (anon_sym_lambda, ACTIONS 85), (anon_sym_yield, ACTIONS 87), (sym_ellipsis, ACTIONS 89),
    (anon_sym___mlir_type, ACTIONS 91), (sym_integer, ACTIONS 93), (sym_float, ACTIONS 89),
    (anon_sym_await, ACTIONS 95), (sym_true, ACTIONS 93), (sym_false, ACTIONS 93),
    (sym_none, ACTIONS 93), (sym_comment, ACTIONS 3), (sym_line_continuation, ACTIONS 3),
    (sym__dedent, ACTIONS 129), (sym_string_start, ACTIONS 97)]"

definition parse_table_39 :: "(nat \<times> nat) list" where "parse_table_39 = [
    (sym__statement, STATE 925), (sym__simple_statements, STATE 925),
    (sym_import_statement, STATE 11814), (sym_future_import_statement, STATE 11814),
    (sym_import_from_statement, STATE 11814), (sym_print_statement, STATE 11814),
    (sym_assert_statement, STATE 11814), (sym_comptime_assert_statement, STATE 11814),
    (sym_expression_statement, STATE 11814), (sym_tuple_expression, STATE 12425),
    (sym_named_expression, STATE 7969), (sym__named_expression_lhs, STATE 12752),
    (sym_return_statement, STATE 11814), (sym_delete_statement, STATE 11814),
    (sym_raise_statement, STATE 11814), (sym_pass_statement, STATE 11814),
    (sym_break_statement, STATE 11814), (sym_continue_statement, STATE 11814),
    (sym_extension_definition, STATE 925), (sym_mlir_region, STATE 925),
    (sym_comptime_statement, STATE 925), (sym_if_statement, STATE 925),
    (sym_match_statement, STATE 925), (sym_for_statement, STATE 925),
    (sym_while_statement, STATE 925), (sym_try_statement, STATE 925),
    (sym_with_statement, STATE 925), (sym_function_definition, STATE 925),
    (sym_global_statement, STATE 11814), (sym_nonlocal_statement, STATE 11814),
    (sym_exec_statement, STATE 11814), (sym_type_alias_statement, STATE 11814),
    (sym_parameterized_alias_statement, STATE 11814), (sym_class_definition, STATE 925),
    (sym_trait_definition, STATE 925), (sym_decorated_definition, STATE 925),
    (sym_decorator, STATE 3670), (sym_block, STATE 4297), (sym_pattern, STATE 8086),
    (sym_tuple_pattern, STATE 8101), (sym_list_pattern, STATE 8101),
    (sym_list_splat_pattern, STATE 6819), (sym_as_pattern, STATE 7969),
    (sym_expression, STATE 9883), (sym_primary_expression, STATE 7326),
    (sym_comptime_expression, STATE 7017), (sym_transfer_expression, STATE 7017),
    (sym_not_operator, STATE 7969), (sym_boolean_operator, STATE 7969),
    (sym_binary_operator, STATE 7017), (sym_unary_operator, STATE 7017),
    (sym_comparison_operator, STATE 7969), (sym_lambda, STATE 7969),
    (sym_assignment, STATE 12425), (sym_augmented_assignment, STATE 12425),
    (sym_pattern_list, STATE 8578), (sym_yield, STATE 12425), (sym_attribute, STATE 6836),
    (sym_subscript, STATE 6838), (sym_call, STATE 6845), (sym_mlir_type, STATE 7017),
    (sym_list, STATE 7017), (sym_set, STATE 7017), (sym_tuple, STATE 7017),
    (sym_dictionary, STATE 7017), (sym_struct_literal, STATE 7017),
    (sym_list_comprehension, STATE 7017), (sym_dictionary_comprehension, STATE 7017),
    (sym_set_comprehension, STATE 7017), (sym_generator_expression, STATE 7017),
    (sym_parenthesized_expression, STATE 7017), (sym_conditional_expression, STATE 7969),
    (sym_concatenated_string, STATE 7017), (sym_string, STATE 6751), (sym_await, STATE 7017),
    (aux_sym_module_repeat1, STATE 925), (aux_sym_decorated_definition_repeat1, STATE 3670),
    (sym_identifier, ACTIONS 9), (anon_sym_import, ACTIONS 11), (anon_sym_from, ACTIONS 13),
    (anon_sym_LPAREN, ACTIONS 15), (anon_sym_STAR, ACTIONS 17), (anon_sym_print, ACTIONS 19),
    (anon_sym_comptime, ACTIONS 99), (anon_sym_assert, ACTIONS 23),
    (anon_sym___comptime_assert, ACTIONS 25), (anon_sym_return, ACTIONS 27),
    (anon_sym_del, ACTIONS 29), (anon_sym_raise, ACTIONS 31), (anon_sym_pass, ACTIONS 33),
    (anon_sym_break, ACTIONS 35), (anon_sym_continue, ACTIONS 37),
    (anon_sym___extension, ACTIONS 101), (anon_sym___mlir_region, ACTIONS 103),
    (anon_sym_if, ACTIONS 105), (anon_sym_match, ACTIONS 107), (anon_sym_async, ACTIONS 109),
    (anon_sym_for, ACTIONS 111), (anon_sym_while, ACTIONS 113), (anon_sym_try, ACTIONS 115),
    (anon_sym_with, ACTIONS 117), (anon_sym_def, ACTIONS 119), (anon_sym_fn, ACTIONS 119),
    (anon_sym_LBRACK, ACTIONS 59), (anon_sym_LBRACE, ACTIONS 61), (anon_sym_global, ACTIONS 63),
    (anon_sym_nonlocal, ACTIONS 65), (anon_sym_exec, ACTIONS 67), (anon_sym_type, ACTIONS 69),
    (anon_sym_class, ACTIONS 121), (anon_sym_struct, ACTIONS 121), (anon_sym_mut, ACTIONS 73),
    (anon_sym_out, ACTIONS 73), (anon_sym_trait, ACTIONS 123), (anon_sym_AT, ACTIONS 77),
    (anon_sym_DASH, ACTIONS 79), (anon_sym_PLUS, ACTIONS 79), (anon_sym_ref, ACTIONS 81),
    (anon_sym_var, ACTIONS 81), (anon_sym_not, ACTIONS 83), (anon_sym_TILDE, ACTIONS 79),
    (anon_sym_lambda, ACTIONS 85), (anon_sym_yield, ACTIONS 87), (sym_ellipsis, ACTIONS 89),
    (anon_sym___mlir_type, ACTIONS 91), (sym_integer, ACTIONS 93), (sym_float, ACTIONS 89),
    (anon_sym_await, ACTIONS 95), (sym_true, ACTIONS 93), (sym_false, ACTIONS 93),
    (sym_none, ACTIONS 93), (sym_comment, ACTIONS 3), (sym_line_continuation, ACTIONS 3),
    (sym__dedent, ACTIONS 129), (sym_string_start, ACTIONS 97)]"

definition parse_table_40 :: "(nat \<times> nat) list" where "parse_table_40 = [
    (sym__statement, STATE 928), (sym__simple_statements, STATE 928),
    (sym_import_statement, STATE 11814), (sym_future_import_statement, STATE 11814),
    (sym_import_from_statement, STATE 11814), (sym_print_statement, STATE 11814),
    (sym_assert_statement, STATE 11814), (sym_comptime_assert_statement, STATE 11814),
    (sym_expression_statement, STATE 11814), (sym_tuple_expression, STATE 12425),
    (sym_named_expression, STATE 7969), (sym__named_expression_lhs, STATE 12752),
    (sym_return_statement, STATE 11814), (sym_delete_statement, STATE 11814),
    (sym_raise_statement, STATE 11814), (sym_pass_statement, STATE 11814),
    (sym_break_statement, STATE 11814), (sym_continue_statement, STATE 11814),
    (sym_extension_definition, STATE 928), (sym_mlir_region, STATE 928),
    (sym_comptime_statement, STATE 928), (sym_if_statement, STATE 928),
    (sym_match_statement, STATE 928), (sym_for_statement, STATE 928),
    (sym_while_statement, STATE 928), (sym_try_statement, STATE 928),
    (sym_with_statement, STATE 928), (sym_function_definition, STATE 928),
    (sym_global_statement, STATE 11814), (sym_nonlocal_statement, STATE 11814),
    (sym_exec_statement, STATE 11814), (sym_type_alias_statement, STATE 11814),
    (sym_parameterized_alias_statement, STATE 11814), (sym_class_definition, STATE 928),
    (sym_trait_definition, STATE 928), (sym_decorated_definition, STATE 928),
    (sym_decorator, STATE 3670), (sym_block, STATE 12409), (sym_pattern, STATE 8086),
    (sym_tuple_pattern, STATE 8101), (sym_list_pattern, STATE 8101),
    (sym_list_splat_pattern, STATE 6819), (sym_as_pattern, STATE 7969),
    (sym_expression, STATE 9883), (sym_primary_expression, STATE 7326),
    (sym_comptime_expression, STATE 7017), (sym_transfer_expression, STATE 7017),
    (sym_not_operator, STATE 7969), (sym_boolean_operator, STATE 7969),
    (sym_binary_operator, STATE 7017), (sym_unary_operator, STATE 7017),
    (sym_comparison_operator, STATE 7969), (sym_lambda, STATE 7969),
    (sym_assignment, STATE 12425), (sym_augmented_assignment, STATE 12425),
    (sym_pattern_list, STATE 8578), (sym_yield, STATE 12425), (sym_attribute, STATE 6836),
    (sym_subscript, STATE 6838), (sym_call, STATE 6845), (sym_mlir_type, STATE 7017),
    (sym_list, STATE 7017), (sym_set, STATE 7017), (sym_tuple, STATE 7017),
    (sym_dictionary, STATE 7017), (sym_struct_literal, STATE 7017),
    (sym_list_comprehension, STATE 7017), (sym_dictionary_comprehension, STATE 7017),
    (sym_set_comprehension, STATE 7017), (sym_generator_expression, STATE 7017),
    (sym_parenthesized_expression, STATE 7017), (sym_conditional_expression, STATE 7969),
    (sym_concatenated_string, STATE 7017), (sym_string, STATE 6751), (sym_await, STATE 7017),
    (aux_sym_module_repeat1, STATE 928), (aux_sym_decorated_definition_repeat1, STATE 3670),
    (sym_identifier, ACTIONS 9), (anon_sym_import, ACTIONS 11), (anon_sym_from, ACTIONS 13),
    (anon_sym_LPAREN, ACTIONS 15), (anon_sym_STAR, ACTIONS 17), (anon_sym_print, ACTIONS 19),
    (anon_sym_comptime, ACTIONS 99), (anon_sym_assert, ACTIONS 23),
    (anon_sym___comptime_assert, ACTIONS 25), (anon_sym_return, ACTIONS 27),
    (anon_sym_del, ACTIONS 29), (anon_sym_raise, ACTIONS 31), (anon_sym_pass, ACTIONS 33),
    (anon_sym_break, ACTIONS 35), (anon_sym_continue, ACTIONS 37),
    (anon_sym___extension, ACTIONS 101), (anon_sym___mlir_region, ACTIONS 103),
    (anon_sym_if, ACTIONS 105), (anon_sym_match, ACTIONS 107), (anon_sym_async, ACTIONS 109),
    (anon_sym_for, ACTIONS 111), (anon_sym_while, ACTIONS 113), (anon_sym_try, ACTIONS 115),
    (anon_sym_with, ACTIONS 117), (anon_sym_def, ACTIONS 119), (anon_sym_fn, ACTIONS 119),
    (anon_sym_LBRACK, ACTIONS 59), (anon_sym_LBRACE, ACTIONS 61), (anon_sym_global, ACTIONS 63),
    (anon_sym_nonlocal, ACTIONS 65), (anon_sym_exec, ACTIONS 67), (anon_sym_type, ACTIONS 69),
    (anon_sym_class, ACTIONS 121), (anon_sym_struct, ACTIONS 121), (anon_sym_mut, ACTIONS 73),
    (anon_sym_out, ACTIONS 73), (anon_sym_trait, ACTIONS 123), (anon_sym_AT, ACTIONS 77),
    (anon_sym_DASH, ACTIONS 79), (anon_sym_PLUS, ACTIONS 79), (anon_sym_ref, ACTIONS 81),
    (anon_sym_var, ACTIONS 81), (anon_sym_not, ACTIONS 83), (anon_sym_TILDE, ACTIONS 79),
    (anon_sym_lambda, ACTIONS 85), (anon_sym_yield, ACTIONS 87), (sym_ellipsis, ACTIONS 89),
    (anon_sym___mlir_type, ACTIONS 91), (sym_integer, ACTIONS 93), (sym_float, ACTIONS 89),
    (anon_sym_await, ACTIONS 95), (sym_true, ACTIONS 93), (sym_false, ACTIONS 93),
    (sym_none, ACTIONS 93), (sym_comment, ACTIONS 3), (sym_line_continuation, ACTIONS 3),
    (sym__dedent, ACTIONS 133), (sym_string_start, ACTIONS 97)]"

definition parse_table_41 :: "(nat \<times> nat) list" where "parse_table_41 = [
    (sym__statement, STATE 925), (sym__simple_statements, STATE 925),
    (sym_import_statement, STATE 11814), (sym_future_import_statement, STATE 11814),
    (sym_import_from_statement, STATE 11814), (sym_print_statement, STATE 11814),
    (sym_assert_statement, STATE 11814), (sym_comptime_assert_statement, STATE 11814),
    (sym_expression_statement, STATE 11814), (sym_tuple_expression, STATE 12425),
    (sym_named_expression, STATE 7969), (sym__named_expression_lhs, STATE 12752),
    (sym_return_statement, STATE 11814), (sym_delete_statement, STATE 11814),
    (sym_raise_statement, STATE 11814), (sym_pass_statement, STATE 11814),
    (sym_break_statement, STATE 11814), (sym_continue_statement, STATE 11814),
    (sym_extension_definition, STATE 925), (sym_mlir_region, STATE 925),
    (sym_comptime_statement, STATE 925), (sym_if_statement, STATE 925),
    (sym_match_statement, STATE 925), (sym_for_statement, STATE 925),
    (sym_while_statement, STATE 925), (sym_try_statement, STATE 925),
    (sym_with_statement, STATE 925), (sym_function_definition, STATE 925),
    (sym_global_statement, STATE 11814), (sym_nonlocal_statement, STATE 11814),
    (sym_exec_statement, STATE 11814), (sym_type_alias_statement, STATE 11814),
    (sym_parameterized_alias_statement, STATE 11814), (sym_class_definition, STATE 925),
    (sym_trait_definition, STATE 925), (sym_decorated_definition, STATE 925),
    (sym_decorator, STATE 3670), (sym_block, STATE 4289), (sym_pattern, STATE 8086),
    (sym_tuple_pattern, STATE 8101), (sym_list_pattern, STATE 8101),
    (sym_list_splat_pattern, STATE 6819), (sym_as_pattern, STATE 7969),
    (sym_expression, STATE 9883), (sym_primary_expression, STATE 7326),
    (sym_comptime_expression, STATE 7017), (sym_transfer_expression, STATE 7017),
    (sym_not_operator, STATE 7969), (sym_boolean_operator, STATE 7969),
    (sym_binary_operator, STATE 7017), (sym_unary_operator, STATE 7017),
    (sym_comparison_operator, STATE 7969), (sym_lambda, STATE 7969),
    (sym_assignment, STATE 12425), (sym_augmented_assignment, STATE 12425),
    (sym_pattern_list, STATE 8578), (sym_yield, STATE 12425), (sym_attribute, STATE 6836),
    (sym_subscript, STATE 6838), (sym_call, STATE 6845), (sym_mlir_type, STATE 7017),
    (sym_list, STATE 7017), (sym_set, STATE 7017), (sym_tuple, STATE 7017),
    (sym_dictionary, STATE 7017), (sym_struct_literal, STATE 7017),
    (sym_list_comprehension, STATE 7017), (sym_dictionary_comprehension, STATE 7017),
    (sym_set_comprehension, STATE 7017), (sym_generator_expression, STATE 7017),
    (sym_parenthesized_expression, STATE 7017), (sym_conditional_expression, STATE 7969),
    (sym_concatenated_string, STATE 7017), (sym_string, STATE 6751), (sym_await, STATE 7017),
    (aux_sym_module_repeat1, STATE 925), (aux_sym_decorated_definition_repeat1, STATE 3670),
    (sym_identifier, ACTIONS 9), (anon_sym_import, ACTIONS 11), (anon_sym_from, ACTIONS 13),
    (anon_sym_LPAREN, ACTIONS 15), (anon_sym_STAR, ACTIONS 17), (anon_sym_print, ACTIONS 19),
    (anon_sym_comptime, ACTIONS 99), (anon_sym_assert, ACTIONS 23),
    (anon_sym___comptime_assert, ACTIONS 25), (anon_sym_return, ACTIONS 27),
    (anon_sym_del, ACTIONS 29), (anon_sym_raise, ACTIONS 31), (anon_sym_pass, ACTIONS 33),
    (anon_sym_break, ACTIONS 35), (anon_sym_continue, ACTIONS 37),
    (anon_sym___extension, ACTIONS 101), (anon_sym___mlir_region, ACTIONS 103),
    (anon_sym_if, ACTIONS 105), (anon_sym_match, ACTIONS 107), (anon_sym_async, ACTIONS 109),
    (anon_sym_for, ACTIONS 111), (anon_sym_while, ACTIONS 113), (anon_sym_try, ACTIONS 115),
    (anon_sym_with, ACTIONS 117), (anon_sym_def, ACTIONS 119), (anon_sym_fn, ACTIONS 119),
    (anon_sym_LBRACK, ACTIONS 59), (anon_sym_LBRACE, ACTIONS 61), (anon_sym_global, ACTIONS 63),
    (anon_sym_nonlocal, ACTIONS 65), (anon_sym_exec, ACTIONS 67), (anon_sym_type, ACTIONS 69),
    (anon_sym_class, ACTIONS 121), (anon_sym_struct, ACTIONS 121), (anon_sym_mut, ACTIONS 73),
    (anon_sym_out, ACTIONS 73), (anon_sym_trait, ACTIONS 123), (anon_sym_AT, ACTIONS 77),
    (anon_sym_DASH, ACTIONS 79), (anon_sym_PLUS, ACTIONS 79), (anon_sym_ref, ACTIONS 81),
    (anon_sym_var, ACTIONS 81), (anon_sym_not, ACTIONS 83), (anon_sym_TILDE, ACTIONS 79),
    (anon_sym_lambda, ACTIONS 85), (anon_sym_yield, ACTIONS 87), (sym_ellipsis, ACTIONS 89),
    (anon_sym___mlir_type, ACTIONS 91), (sym_integer, ACTIONS 93), (sym_float, ACTIONS 89),
    (anon_sym_await, ACTIONS 95), (sym_true, ACTIONS 93), (sym_false, ACTIONS 93),
    (sym_none, ACTIONS 93), (sym_comment, ACTIONS 3), (sym_line_continuation, ACTIONS 3),
    (sym__dedent, ACTIONS 129), (sym_string_start, ACTIONS 97)]"

definition parse_table_42 :: "(nat \<times> nat) list" where "parse_table_42 = [
    (sym__statement, STATE 925), (sym__simple_statements, STATE 925),
    (sym_import_statement, STATE 11814), (sym_future_import_statement, STATE 11814),
    (sym_import_from_statement, STATE 11814), (sym_print_statement, STATE 11814),
    (sym_assert_statement, STATE 11814), (sym_comptime_assert_statement, STATE 11814),
    (sym_expression_statement, STATE 11814), (sym_tuple_expression, STATE 12425),
    (sym_named_expression, STATE 7969), (sym__named_expression_lhs, STATE 12752),
    (sym_return_statement, STATE 11814), (sym_delete_statement, STATE 11814),
    (sym_raise_statement, STATE 11814), (sym_pass_statement, STATE 11814),
    (sym_break_statement, STATE 11814), (sym_continue_statement, STATE 11814),
    (sym_extension_definition, STATE 925), (sym_mlir_region, STATE 925),
    (sym_comptime_statement, STATE 925), (sym_if_statement, STATE 925),
    (sym_match_statement, STATE 925), (sym_for_statement, STATE 925),
    (sym_while_statement, STATE 925), (sym_try_statement, STATE 925),
    (sym_with_statement, STATE 925), (sym_function_definition, STATE 925),
    (sym_global_statement, STATE 11814), (sym_nonlocal_statement, STATE 11814),
    (sym_exec_statement, STATE 11814), (sym_type_alias_statement, STATE 11814),
    (sym_parameterized_alias_statement, STATE 11814), (sym_class_definition, STATE 925),
    (sym_trait_definition, STATE 925), (sym_decorated_definition, STATE 925),
    (sym_decorator, STATE 3670), (sym_block, STATE 5258), (sym_pattern, STATE 8086),
    (sym_tuple_pattern, STATE 8101), (sym_list_pattern, STATE 8101),
    (sym_list_splat_pattern, STATE 6819), (sym_as_pattern, STATE 7969),
    (sym_expression, STATE 9883), (sym_primary_expression, STATE 7326),
    (sym_comptime_expression, STATE 7017), (sym_transfer_expression, STATE 7017),
    (sym_not_operator, STATE 7969), (sym_boolean_operator, STATE 7969),
    (sym_binary_operator, STATE 7017), (sym_unary_operator, STATE 7017),
    (sym_comparison_operator, STATE 7969), (sym_lambda, STATE 7969),
    (sym_assignment, STATE 12425), (sym_augmented_assignment, STATE 12425),
    (sym_pattern_list, STATE 8578), (sym_yield, STATE 12425), (sym_attribute, STATE 6836),
    (sym_subscript, STATE 6838), (sym_call, STATE 6845), (sym_mlir_type, STATE 7017),
    (sym_list, STATE 7017), (sym_set, STATE 7017), (sym_tuple, STATE 7017),
    (sym_dictionary, STATE 7017), (sym_struct_literal, STATE 7017),
    (sym_list_comprehension, STATE 7017), (sym_dictionary_comprehension, STATE 7017),
    (sym_set_comprehension, STATE 7017), (sym_generator_expression, STATE 7017),
    (sym_parenthesized_expression, STATE 7017), (sym_conditional_expression, STATE 7969),
    (sym_concatenated_string, STATE 7017), (sym_string, STATE 6751), (sym_await, STATE 7017),
    (aux_sym_module_repeat1, STATE 925), (aux_sym_decorated_definition_repeat1, STATE 3670),
    (sym_identifier, ACTIONS 9), (anon_sym_import, ACTIONS 11), (anon_sym_from, ACTIONS 13),
    (anon_sym_LPAREN, ACTIONS 15), (anon_sym_STAR, ACTIONS 17), (anon_sym_print, ACTIONS 19),
    (anon_sym_comptime, ACTIONS 99), (anon_sym_assert, ACTIONS 23),
    (anon_sym___comptime_assert, ACTIONS 25), (anon_sym_return, ACTIONS 27),
    (anon_sym_del, ACTIONS 29), (anon_sym_raise, ACTIONS 31), (anon_sym_pass, ACTIONS 33),
    (anon_sym_break, ACTIONS 35), (anon_sym_continue, ACTIONS 37),
    (anon_sym___extension, ACTIONS 101), (anon_sym___mlir_region, ACTIONS 103),
    (anon_sym_if, ACTIONS 105), (anon_sym_match, ACTIONS 107), (anon_sym_async, ACTIONS 109),
    (anon_sym_for, ACTIONS 111), (anon_sym_while, ACTIONS 113), (anon_sym_try, ACTIONS 115),
    (anon_sym_with, ACTIONS 117), (anon_sym_def, ACTIONS 119), (anon_sym_fn, ACTIONS 119),
    (anon_sym_LBRACK, ACTIONS 59), (anon_sym_LBRACE, ACTIONS 61), (anon_sym_global, ACTIONS 63),
    (anon_sym_nonlocal, ACTIONS 65), (anon_sym_exec, ACTIONS 67), (anon_sym_type, ACTIONS 69),
    (anon_sym_class, ACTIONS 121), (anon_sym_struct, ACTIONS 121), (anon_sym_mut, ACTIONS 73),
    (anon_sym_out, ACTIONS 73), (anon_sym_trait, ACTIONS 123), (anon_sym_AT, ACTIONS 77),
    (anon_sym_DASH, ACTIONS 79), (anon_sym_PLUS, ACTIONS 79), (anon_sym_ref, ACTIONS 81),
    (anon_sym_var, ACTIONS 81), (anon_sym_not, ACTIONS 83), (anon_sym_TILDE, ACTIONS 79),
    (anon_sym_lambda, ACTIONS 85), (anon_sym_yield, ACTIONS 87), (sym_ellipsis, ACTIONS 89),
    (anon_sym___mlir_type, ACTIONS 91), (sym_integer, ACTIONS 93), (sym_float, ACTIONS 89),
    (anon_sym_await, ACTIONS 95), (sym_true, ACTIONS 93), (sym_false, ACTIONS 93),
    (sym_none, ACTIONS 93), (sym_comment, ACTIONS 3), (sym_line_continuation, ACTIONS 3),
    (sym__dedent, ACTIONS 129), (sym_string_start, ACTIONS 97)]"

definition parse_table_43 :: "(nat \<times> nat) list" where "parse_table_43 = [
    (sym__statement, STATE 925), (sym__simple_statements, STATE 925),
    (sym_import_statement, STATE 11814), (sym_future_import_statement, STATE 11814),
    (sym_import_from_statement, STATE 11814), (sym_print_statement, STATE 11814),
    (sym_assert_statement, STATE 11814), (sym_comptime_assert_statement, STATE 11814),
    (sym_expression_statement, STATE 11814), (sym_tuple_expression, STATE 12425),
    (sym_named_expression, STATE 7969), (sym__named_expression_lhs, STATE 12752),
    (sym_return_statement, STATE 11814), (sym_delete_statement, STATE 11814),
    (sym_raise_statement, STATE 11814), (sym_pass_statement, STATE 11814),
    (sym_break_statement, STATE 11814), (sym_continue_statement, STATE 11814),
    (sym_extension_definition, STATE 925), (sym_mlir_region, STATE 925),
    (sym_comptime_statement, STATE 925), (sym_if_statement, STATE 925),
    (sym_match_statement, STATE 925), (sym_for_statement, STATE 925),
    (sym_while_statement, STATE 925), (sym_try_statement, STATE 925),
    (sym_with_statement, STATE 925), (sym_function_definition, STATE 925),
    (sym_global_statement, STATE 11814), (sym_nonlocal_statement, STATE 11814),
    (sym_exec_statement, STATE 11814), (sym_type_alias_statement, STATE 11814),
    (sym_parameterized_alias_statement, STATE 11814), (sym_class_definition, STATE 925),
    (sym_trait_definition, STATE 925), (sym_decorated_definition, STATE 925),
    (sym_decorator, STATE 3670), (sym_block, STATE 5266), (sym_pattern, STATE 8086),
    (sym_tuple_pattern, STATE 8101), (sym_list_pattern, STATE 8101),
    (sym_list_splat_pattern, STATE 6819), (sym_as_pattern, STATE 7969),
    (sym_expression, STATE 9883), (sym_primary_expression, STATE 7326),
    (sym_comptime_expression, STATE 7017), (sym_transfer_expression, STATE 7017),
    (sym_not_operator, STATE 7969), (sym_boolean_operator, STATE 7969),
    (sym_binary_operator, STATE 7017), (sym_unary_operator, STATE 7017),
    (sym_comparison_operator, STATE 7969), (sym_lambda, STATE 7969),
    (sym_assignment, STATE 12425), (sym_augmented_assignment, STATE 12425),
    (sym_pattern_list, STATE 8578), (sym_yield, STATE 12425), (sym_attribute, STATE 6836),
    (sym_subscript, STATE 6838), (sym_call, STATE 6845), (sym_mlir_type, STATE 7017),
    (sym_list, STATE 7017), (sym_set, STATE 7017), (sym_tuple, STATE 7017),
    (sym_dictionary, STATE 7017), (sym_struct_literal, STATE 7017),
    (sym_list_comprehension, STATE 7017), (sym_dictionary_comprehension, STATE 7017),
    (sym_set_comprehension, STATE 7017), (sym_generator_expression, STATE 7017),
    (sym_parenthesized_expression, STATE 7017), (sym_conditional_expression, STATE 7969),
    (sym_concatenated_string, STATE 7017), (sym_string, STATE 6751), (sym_await, STATE 7017),
    (aux_sym_module_repeat1, STATE 925), (aux_sym_decorated_definition_repeat1, STATE 3670),
    (sym_identifier, ACTIONS 9), (anon_sym_import, ACTIONS 11), (anon_sym_from, ACTIONS 13),
    (anon_sym_LPAREN, ACTIONS 15), (anon_sym_STAR, ACTIONS 17), (anon_sym_print, ACTIONS 19),
    (anon_sym_comptime, ACTIONS 99), (anon_sym_assert, ACTIONS 23),
    (anon_sym___comptime_assert, ACTIONS 25), (anon_sym_return, ACTIONS 27),
    (anon_sym_del, ACTIONS 29), (anon_sym_raise, ACTIONS 31), (anon_sym_pass, ACTIONS 33),
    (anon_sym_break, ACTIONS 35), (anon_sym_continue, ACTIONS 37),
    (anon_sym___extension, ACTIONS 101), (anon_sym___mlir_region, ACTIONS 103),
    (anon_sym_if, ACTIONS 105), (anon_sym_match, ACTIONS 107), (anon_sym_async, ACTIONS 109),
    (anon_sym_for, ACTIONS 111), (anon_sym_while, ACTIONS 113), (anon_sym_try, ACTIONS 115),
    (anon_sym_with, ACTIONS 117), (anon_sym_def, ACTIONS 119), (anon_sym_fn, ACTIONS 119),
    (anon_sym_LBRACK, ACTIONS 59), (anon_sym_LBRACE, ACTIONS 61), (anon_sym_global, ACTIONS 63),
    (anon_sym_nonlocal, ACTIONS 65), (anon_sym_exec, ACTIONS 67), (anon_sym_type, ACTIONS 69),
    (anon_sym_class, ACTIONS 121), (anon_sym_struct, ACTIONS 121), (anon_sym_mut, ACTIONS 73),
    (anon_sym_out, ACTIONS 73), (anon_sym_trait, ACTIONS 123), (anon_sym_AT, ACTIONS 77),
    (anon_sym_DASH, ACTIONS 79), (anon_sym_PLUS, ACTIONS 79), (anon_sym_ref, ACTIONS 81),
    (anon_sym_var, ACTIONS 81), (anon_sym_not, ACTIONS 83), (anon_sym_TILDE, ACTIONS 79),
    (anon_sym_lambda, ACTIONS 85), (anon_sym_yield, ACTIONS 87), (sym_ellipsis, ACTIONS 89),
    (anon_sym___mlir_type, ACTIONS 91), (sym_integer, ACTIONS 93), (sym_float, ACTIONS 89),
    (anon_sym_await, ACTIONS 95), (sym_true, ACTIONS 93), (sym_false, ACTIONS 93),
    (sym_none, ACTIONS 93), (sym_comment, ACTIONS 3), (sym_line_continuation, ACTIONS 3),
    (sym__dedent, ACTIONS 129), (sym_string_start, ACTIONS 97)]"

definition parse_table_44 :: "(nat \<times> nat) list" where "parse_table_44 = [
    (sym__statement, STATE 925), (sym__simple_statements, STATE 925),
    (sym_import_statement, STATE 11814), (sym_future_import_statement, STATE 11814),
    (sym_import_from_statement, STATE 11814), (sym_print_statement, STATE 11814),
    (sym_assert_statement, STATE 11814), (sym_comptime_assert_statement, STATE 11814),
    (sym_expression_statement, STATE 11814), (sym_tuple_expression, STATE 12425),
    (sym_named_expression, STATE 7969), (sym__named_expression_lhs, STATE 12752),
    (sym_return_statement, STATE 11814), (sym_delete_statement, STATE 11814),
    (sym_raise_statement, STATE 11814), (sym_pass_statement, STATE 11814),
    (sym_break_statement, STATE 11814), (sym_continue_statement, STATE 11814),
    (sym_extension_definition, STATE 925), (sym_mlir_region, STATE 925),
    (sym_comptime_statement, STATE 925), (sym_if_statement, STATE 925),
    (sym_match_statement, STATE 925), (sym_for_statement, STATE 925),
    (sym_while_statement, STATE 925), (sym_try_statement, STATE 925),
    (sym_with_statement, STATE 925), (sym_function_definition, STATE 925),
    (sym_global_statement, STATE 11814), (sym_nonlocal_statement, STATE 11814),
    (sym_exec_statement, STATE 11814), (sym_type_alias_statement, STATE 11814),
    (sym_parameterized_alias_statement, STATE 11814), (sym_class_definition, STATE 925),
    (sym_trait_definition, STATE 925), (sym_decorated_definition, STATE 925),
    (sym_decorator, STATE 3670), (sym_block, STATE 5276), (sym_pattern, STATE 8086),
    (sym_tuple_pattern, STATE 8101), (sym_list_pattern, STATE 8101),
    (sym_list_splat_pattern, STATE 6819), (sym_as_pattern, STATE 7969),
    (sym_expression, STATE 9883), (sym_primary_expression, STATE 7326),
    (sym_comptime_expression, STATE 7017), (sym_transfer_expression, STATE 7017),
    (sym_not_operator, STATE 7969), (sym_boolean_operator, STATE 7969),
    (sym_binary_operator, STATE 7017), (sym_unary_operator, STATE 7017),
    (sym_comparison_operator, STATE 7969), (sym_lambda, STATE 7969),
    (sym_assignment, STATE 12425), (sym_augmented_assignment, STATE 12425),
    (sym_pattern_list, STATE 8578), (sym_yield, STATE 12425), (sym_attribute, STATE 6836),
    (sym_subscript, STATE 6838), (sym_call, STATE 6845), (sym_mlir_type, STATE 7017),
    (sym_list, STATE 7017), (sym_set, STATE 7017), (sym_tuple, STATE 7017),
    (sym_dictionary, STATE 7017), (sym_struct_literal, STATE 7017),
    (sym_list_comprehension, STATE 7017), (sym_dictionary_comprehension, STATE 7017),
    (sym_set_comprehension, STATE 7017), (sym_generator_expression, STATE 7017),
    (sym_parenthesized_expression, STATE 7017), (sym_conditional_expression, STATE 7969),
    (sym_concatenated_string, STATE 7017), (sym_string, STATE 6751), (sym_await, STATE 7017),
    (aux_sym_module_repeat1, STATE 925), (aux_sym_decorated_definition_repeat1, STATE 3670),
    (sym_identifier, ACTIONS 9), (anon_sym_import, ACTIONS 11), (anon_sym_from, ACTIONS 13),
    (anon_sym_LPAREN, ACTIONS 15), (anon_sym_STAR, ACTIONS 17), (anon_sym_print, ACTIONS 19),
    (anon_sym_comptime, ACTIONS 99), (anon_sym_assert, ACTIONS 23),
    (anon_sym___comptime_assert, ACTIONS 25), (anon_sym_return, ACTIONS 27),
    (anon_sym_del, ACTIONS 29), (anon_sym_raise, ACTIONS 31), (anon_sym_pass, ACTIONS 33),
    (anon_sym_break, ACTIONS 35), (anon_sym_continue, ACTIONS 37),
    (anon_sym___extension, ACTIONS 101), (anon_sym___mlir_region, ACTIONS 103),
    (anon_sym_if, ACTIONS 105), (anon_sym_match, ACTIONS 107), (anon_sym_async, ACTIONS 109),
    (anon_sym_for, ACTIONS 111), (anon_sym_while, ACTIONS 113), (anon_sym_try, ACTIONS 115),
    (anon_sym_with, ACTIONS 117), (anon_sym_def, ACTIONS 119), (anon_sym_fn, ACTIONS 119),
    (anon_sym_LBRACK, ACTIONS 59), (anon_sym_LBRACE, ACTIONS 61), (anon_sym_global, ACTIONS 63),
    (anon_sym_nonlocal, ACTIONS 65), (anon_sym_exec, ACTIONS 67), (anon_sym_type, ACTIONS 69),
    (anon_sym_class, ACTIONS 121), (anon_sym_struct, ACTIONS 121), (anon_sym_mut, ACTIONS 73),
    (anon_sym_out, ACTIONS 73), (anon_sym_trait, ACTIONS 123), (anon_sym_AT, ACTIONS 77),
    (anon_sym_DASH, ACTIONS 79), (anon_sym_PLUS, ACTIONS 79), (anon_sym_ref, ACTIONS 81),
    (anon_sym_var, ACTIONS 81), (anon_sym_not, ACTIONS 83), (anon_sym_TILDE, ACTIONS 79),
    (anon_sym_lambda, ACTIONS 85), (anon_sym_yield, ACTIONS 87), (sym_ellipsis, ACTIONS 89),
    (anon_sym___mlir_type, ACTIONS 91), (sym_integer, ACTIONS 93), (sym_float, ACTIONS 89),
    (anon_sym_await, ACTIONS 95), (sym_true, ACTIONS 93), (sym_false, ACTIONS 93),
    (sym_none, ACTIONS 93), (sym_comment, ACTIONS 3), (sym_line_continuation, ACTIONS 3),
    (sym__dedent, ACTIONS 129), (sym_string_start, ACTIONS 97)]"

definition parse_table_45 :: "(nat \<times> nat) list" where "parse_table_45 = [
    (sym__statement, STATE 925), (sym__simple_statements, STATE 925),
    (sym_import_statement, STATE 11814), (sym_future_import_statement, STATE 11814),
    (sym_import_from_statement, STATE 11814), (sym_print_statement, STATE 11814),
    (sym_assert_statement, STATE 11814), (sym_comptime_assert_statement, STATE 11814),
    (sym_expression_statement, STATE 11814), (sym_tuple_expression, STATE 12425),
    (sym_named_expression, STATE 7969), (sym__named_expression_lhs, STATE 12752),
    (sym_return_statement, STATE 11814), (sym_delete_statement, STATE 11814),
    (sym_raise_statement, STATE 11814), (sym_pass_statement, STATE 11814),
    (sym_break_statement, STATE 11814), (sym_continue_statement, STATE 11814),
    (sym_extension_definition, STATE 925), (sym_mlir_region, STATE 925),
    (sym_comptime_statement, STATE 925), (sym_if_statement, STATE 925),
    (sym_match_statement, STATE 925), (sym_for_statement, STATE 925),
    (sym_while_statement, STATE 925), (sym_try_statement, STATE 925),
    (sym_with_statement, STATE 925), (sym_function_definition, STATE 925),
    (sym_global_statement, STATE 11814), (sym_nonlocal_statement, STATE 11814),
    (sym_exec_statement, STATE 11814), (sym_type_alias_statement, STATE 11814),
    (sym_parameterized_alias_statement, STATE 11814), (sym_class_definition, STATE 925),
    (sym_trait_definition, STATE 925), (sym_decorated_definition, STATE 925),
    (sym_decorator, STATE 3670), (sym_block, STATE 5288), (sym_pattern, STATE 8086),
    (sym_tuple_pattern, STATE 8101), (sym_list_pattern, STATE 8101),
    (sym_list_splat_pattern, STATE 6819), (sym_as_pattern, STATE 7969),
    (sym_expression, STATE 9883), (sym_primary_expression, STATE 7326),
    (sym_comptime_expression, STATE 7017), (sym_transfer_expression, STATE 7017),
    (sym_not_operator, STATE 7969), (sym_boolean_operator, STATE 7969),
    (sym_binary_operator, STATE 7017), (sym_unary_operator, STATE 7017),
    (sym_comparison_operator, STATE 7969), (sym_lambda, STATE 7969),
    (sym_assignment, STATE 12425), (sym_augmented_assignment, STATE 12425),
    (sym_pattern_list, STATE 8578), (sym_yield, STATE 12425), (sym_attribute, STATE 6836),
    (sym_subscript, STATE 6838), (sym_call, STATE 6845), (sym_mlir_type, STATE 7017),
    (sym_list, STATE 7017), (sym_set, STATE 7017), (sym_tuple, STATE 7017),
    (sym_dictionary, STATE 7017), (sym_struct_literal, STATE 7017),
    (sym_list_comprehension, STATE 7017), (sym_dictionary_comprehension, STATE 7017),
    (sym_set_comprehension, STATE 7017), (sym_generator_expression, STATE 7017),
    (sym_parenthesized_expression, STATE 7017), (sym_conditional_expression, STATE 7969),
    (sym_concatenated_string, STATE 7017), (sym_string, STATE 6751), (sym_await, STATE 7017),
    (aux_sym_module_repeat1, STATE 925), (aux_sym_decorated_definition_repeat1, STATE 3670),
    (sym_identifier, ACTIONS 9), (anon_sym_import, ACTIONS 11), (anon_sym_from, ACTIONS 13),
    (anon_sym_LPAREN, ACTIONS 15), (anon_sym_STAR, ACTIONS 17), (anon_sym_print, ACTIONS 19),
    (anon_sym_comptime, ACTIONS 99), (anon_sym_assert, ACTIONS 23),
    (anon_sym___comptime_assert, ACTIONS 25), (anon_sym_return, ACTIONS 27),
    (anon_sym_del, ACTIONS 29), (anon_sym_raise, ACTIONS 31), (anon_sym_pass, ACTIONS 33),
    (anon_sym_break, ACTIONS 35), (anon_sym_continue, ACTIONS 37),
    (anon_sym___extension, ACTIONS 101), (anon_sym___mlir_region, ACTIONS 103),
    (anon_sym_if, ACTIONS 105), (anon_sym_match, ACTIONS 107), (anon_sym_async, ACTIONS 109),
    (anon_sym_for, ACTIONS 111), (anon_sym_while, ACTIONS 113), (anon_sym_try, ACTIONS 115),
    (anon_sym_with, ACTIONS 117), (anon_sym_def, ACTIONS 119), (anon_sym_fn, ACTIONS 119),
    (anon_sym_LBRACK, ACTIONS 59), (anon_sym_LBRACE, ACTIONS 61), (anon_sym_global, ACTIONS 63),
    (anon_sym_nonlocal, ACTIONS 65), (anon_sym_exec, ACTIONS 67), (anon_sym_type, ACTIONS 69),
    (anon_sym_class, ACTIONS 121), (anon_sym_struct, ACTIONS 121), (anon_sym_mut, ACTIONS 73),
    (anon_sym_out, ACTIONS 73), (anon_sym_trait, ACTIONS 123), (anon_sym_AT, ACTIONS 77),
    (anon_sym_DASH, ACTIONS 79), (anon_sym_PLUS, ACTIONS 79), (anon_sym_ref, ACTIONS 81),
    (anon_sym_var, ACTIONS 81), (anon_sym_not, ACTIONS 83), (anon_sym_TILDE, ACTIONS 79),
    (anon_sym_lambda, ACTIONS 85), (anon_sym_yield, ACTIONS 87), (sym_ellipsis, ACTIONS 89),
    (anon_sym___mlir_type, ACTIONS 91), (sym_integer, ACTIONS 93), (sym_float, ACTIONS 89),
    (anon_sym_await, ACTIONS 95), (sym_true, ACTIONS 93), (sym_false, ACTIONS 93),
    (sym_none, ACTIONS 93), (sym_comment, ACTIONS 3), (sym_line_continuation, ACTIONS 3),
    (sym__dedent, ACTIONS 129), (sym_string_start, ACTIONS 97)]"

definition parse_table_46 :: "(nat \<times> nat) list" where "parse_table_46 = [
    (sym__statement, STATE 925), (sym__simple_statements, STATE 925),
    (sym_import_statement, STATE 11814), (sym_future_import_statement, STATE 11814),
    (sym_import_from_statement, STATE 11814), (sym_print_statement, STATE 11814),
    (sym_assert_statement, STATE 11814), (sym_comptime_assert_statement, STATE 11814),
    (sym_expression_statement, STATE 11814), (sym_tuple_expression, STATE 12425),
    (sym_named_expression, STATE 7969), (sym__named_expression_lhs, STATE 12752),
    (sym_return_statement, STATE 11814), (sym_delete_statement, STATE 11814),
    (sym_raise_statement, STATE 11814), (sym_pass_statement, STATE 11814),
    (sym_break_statement, STATE 11814), (sym_continue_statement, STATE 11814),
    (sym_extension_definition, STATE 925), (sym_mlir_region, STATE 925),
    (sym_comptime_statement, STATE 925), (sym_if_statement, STATE 925),
    (sym_match_statement, STATE 925), (sym_for_statement, STATE 925),
    (sym_while_statement, STATE 925), (sym_try_statement, STATE 925),
    (sym_with_statement, STATE 925), (sym_function_definition, STATE 925),
    (sym_global_statement, STATE 11814), (sym_nonlocal_statement, STATE 11814),
    (sym_exec_statement, STATE 11814), (sym_type_alias_statement, STATE 11814),
    (sym_parameterized_alias_statement, STATE 11814), (sym_class_definition, STATE 925),
    (sym_trait_definition, STATE 925), (sym_decorated_definition, STATE 925),
    (sym_decorator, STATE 3670), (sym_block, STATE 5293), (sym_pattern, STATE 8086),
    (sym_tuple_pattern, STATE 8101), (sym_list_pattern, STATE 8101),
    (sym_list_splat_pattern, STATE 6819), (sym_as_pattern, STATE 7969),
    (sym_expression, STATE 9883), (sym_primary_expression, STATE 7326),
    (sym_comptime_expression, STATE 7017), (sym_transfer_expression, STATE 7017),
    (sym_not_operator, STATE 7969), (sym_boolean_operator, STATE 7969),
    (sym_binary_operator, STATE 7017), (sym_unary_operator, STATE 7017),
    (sym_comparison_operator, STATE 7969), (sym_lambda, STATE 7969),
    (sym_assignment, STATE 12425), (sym_augmented_assignment, STATE 12425),
    (sym_pattern_list, STATE 8578), (sym_yield, STATE 12425), (sym_attribute, STATE 6836),
    (sym_subscript, STATE 6838), (sym_call, STATE 6845), (sym_mlir_type, STATE 7017),
    (sym_list, STATE 7017), (sym_set, STATE 7017), (sym_tuple, STATE 7017),
    (sym_dictionary, STATE 7017), (sym_struct_literal, STATE 7017),
    (sym_list_comprehension, STATE 7017), (sym_dictionary_comprehension, STATE 7017),
    (sym_set_comprehension, STATE 7017), (sym_generator_expression, STATE 7017),
    (sym_parenthesized_expression, STATE 7017), (sym_conditional_expression, STATE 7969),
    (sym_concatenated_string, STATE 7017), (sym_string, STATE 6751), (sym_await, STATE 7017),
    (aux_sym_module_repeat1, STATE 925), (aux_sym_decorated_definition_repeat1, STATE 3670),
    (sym_identifier, ACTIONS 9), (anon_sym_import, ACTIONS 11), (anon_sym_from, ACTIONS 13),
    (anon_sym_LPAREN, ACTIONS 15), (anon_sym_STAR, ACTIONS 17), (anon_sym_print, ACTIONS 19),
    (anon_sym_comptime, ACTIONS 99), (anon_sym_assert, ACTIONS 23),
    (anon_sym___comptime_assert, ACTIONS 25), (anon_sym_return, ACTIONS 27),
    (anon_sym_del, ACTIONS 29), (anon_sym_raise, ACTIONS 31), (anon_sym_pass, ACTIONS 33),
    (anon_sym_break, ACTIONS 35), (anon_sym_continue, ACTIONS 37),
    (anon_sym___extension, ACTIONS 101), (anon_sym___mlir_region, ACTIONS 103),
    (anon_sym_if, ACTIONS 105), (anon_sym_match, ACTIONS 107), (anon_sym_async, ACTIONS 109),
    (anon_sym_for, ACTIONS 111), (anon_sym_while, ACTIONS 113), (anon_sym_try, ACTIONS 115),
    (anon_sym_with, ACTIONS 117), (anon_sym_def, ACTIONS 119), (anon_sym_fn, ACTIONS 119),
    (anon_sym_LBRACK, ACTIONS 59), (anon_sym_LBRACE, ACTIONS 61), (anon_sym_global, ACTIONS 63),
    (anon_sym_nonlocal, ACTIONS 65), (anon_sym_exec, ACTIONS 67), (anon_sym_type, ACTIONS 69),
    (anon_sym_class, ACTIONS 121), (anon_sym_struct, ACTIONS 121), (anon_sym_mut, ACTIONS 73),
    (anon_sym_out, ACTIONS 73), (anon_sym_trait, ACTIONS 123), (anon_sym_AT, ACTIONS 77),
    (anon_sym_DASH, ACTIONS 79), (anon_sym_PLUS, ACTIONS 79), (anon_sym_ref, ACTIONS 81),
    (anon_sym_var, ACTIONS 81), (anon_sym_not, ACTIONS 83), (anon_sym_TILDE, ACTIONS 79),
    (anon_sym_lambda, ACTIONS 85), (anon_sym_yield, ACTIONS 87), (sym_ellipsis, ACTIONS 89),
    (anon_sym___mlir_type, ACTIONS 91), (sym_integer, ACTIONS 93), (sym_float, ACTIONS 89),
    (anon_sym_await, ACTIONS 95), (sym_true, ACTIONS 93), (sym_false, ACTIONS 93),
    (sym_none, ACTIONS 93), (sym_comment, ACTIONS 3), (sym_line_continuation, ACTIONS 3),
    (sym__dedent, ACTIONS 129), (sym_string_start, ACTIONS 97)]"

definition parse_table_47 :: "(nat \<times> nat) list" where "parse_table_47 = [
    (sym__statement, STATE 925), (sym__simple_statements, STATE 925),
    (sym_import_statement, STATE 11814), (sym_future_import_statement, STATE 11814),
    (sym_import_from_statement, STATE 11814), (sym_print_statement, STATE 11814),
    (sym_assert_statement, STATE 11814), (sym_comptime_assert_statement, STATE 11814),
    (sym_expression_statement, STATE 11814), (sym_tuple_expression, STATE 12425),
    (sym_named_expression, STATE 7969), (sym__named_expression_lhs, STATE 12752),
    (sym_return_statement, STATE 11814), (sym_delete_statement, STATE 11814),
    (sym_raise_statement, STATE 11814), (sym_pass_statement, STATE 11814),
    (sym_break_statement, STATE 11814), (sym_continue_statement, STATE 11814),
    (sym_extension_definition, STATE 925), (sym_mlir_region, STATE 925),
    (sym_comptime_statement, STATE 925), (sym_if_statement, STATE 925),
    (sym_match_statement, STATE 925), (sym_for_statement, STATE 925),
    (sym_while_statement, STATE 925), (sym_try_statement, STATE 925),
    (sym_with_statement, STATE 925), (sym_function_definition, STATE 925),
    (sym_global_statement, STATE 11814), (sym_nonlocal_statement, STATE 11814),
    (sym_exec_statement, STATE 11814), (sym_type_alias_statement, STATE 11814),
    (sym_parameterized_alias_statement, STATE 11814), (sym_class_definition, STATE 925),
    (sym_trait_definition, STATE 925), (sym_decorated_definition, STATE 925),
    (sym_decorator, STATE 3670), (sym_block, STATE 5321), (sym_pattern, STATE 8086),
    (sym_tuple_pattern, STATE 8101), (sym_list_pattern, STATE 8101),
    (sym_list_splat_pattern, STATE 6819), (sym_as_pattern, STATE 7969),
    (sym_expression, STATE 9883), (sym_primary_expression, STATE 7326),
    (sym_comptime_expression, STATE 7017), (sym_transfer_expression, STATE 7017),
    (sym_not_operator, STATE 7969), (sym_boolean_operator, STATE 7969),
    (sym_binary_operator, STATE 7017), (sym_unary_operator, STATE 7017),
    (sym_comparison_operator, STATE 7969), (sym_lambda, STATE 7969),
    (sym_assignment, STATE 12425), (sym_augmented_assignment, STATE 12425),
    (sym_pattern_list, STATE 8578), (sym_yield, STATE 12425), (sym_attribute, STATE 6836),
    (sym_subscript, STATE 6838), (sym_call, STATE 6845), (sym_mlir_type, STATE 7017),
    (sym_list, STATE 7017), (sym_set, STATE 7017), (sym_tuple, STATE 7017),
    (sym_dictionary, STATE 7017), (sym_struct_literal, STATE 7017),
    (sym_list_comprehension, STATE 7017), (sym_dictionary_comprehension, STATE 7017),
    (sym_set_comprehension, STATE 7017), (sym_generator_expression, STATE 7017),
    (sym_parenthesized_expression, STATE 7017), (sym_conditional_expression, STATE 7969),
    (sym_concatenated_string, STATE 7017), (sym_string, STATE 6751), (sym_await, STATE 7017),
    (aux_sym_module_repeat1, STATE 925), (aux_sym_decorated_definition_repeat1, STATE 3670),
    (sym_identifier, ACTIONS 9), (anon_sym_import, ACTIONS 11), (anon_sym_from, ACTIONS 13),
    (anon_sym_LPAREN, ACTIONS 15), (anon_sym_STAR, ACTIONS 17), (anon_sym_print, ACTIONS 19),
    (anon_sym_comptime, ACTIONS 99), (anon_sym_assert, ACTIONS 23),
    (anon_sym___comptime_assert, ACTIONS 25), (anon_sym_return, ACTIONS 27),
    (anon_sym_del, ACTIONS 29), (anon_sym_raise, ACTIONS 31), (anon_sym_pass, ACTIONS 33),
    (anon_sym_break, ACTIONS 35), (anon_sym_continue, ACTIONS 37),
    (anon_sym___extension, ACTIONS 101), (anon_sym___mlir_region, ACTIONS 103),
    (anon_sym_if, ACTIONS 105), (anon_sym_match, ACTIONS 107), (anon_sym_async, ACTIONS 109),
    (anon_sym_for, ACTIONS 111), (anon_sym_while, ACTIONS 113), (anon_sym_try, ACTIONS 115),
    (anon_sym_with, ACTIONS 117), (anon_sym_def, ACTIONS 119), (anon_sym_fn, ACTIONS 119),
    (anon_sym_LBRACK, ACTIONS 59), (anon_sym_LBRACE, ACTIONS 61), (anon_sym_global, ACTIONS 63),
    (anon_sym_nonlocal, ACTIONS 65), (anon_sym_exec, ACTIONS 67), (anon_sym_type, ACTIONS 69),
    (anon_sym_class, ACTIONS 121), (anon_sym_struct, ACTIONS 121), (anon_sym_mut, ACTIONS 73),
    (anon_sym_out, ACTIONS 73), (anon_sym_trait, ACTIONS 123), (anon_sym_AT, ACTIONS 77),
    (anon_sym_DASH, ACTIONS 79), (anon_sym_PLUS, ACTIONS 79), (anon_sym_ref, ACTIONS 81),
    (anon_sym_var, ACTIONS 81), (anon_sym_not, ACTIONS 83), (anon_sym_TILDE, ACTIONS 79),
    (anon_sym_lambda, ACTIONS 85), (anon_sym_yield, ACTIONS 87), (sym_ellipsis, ACTIONS 89),
    (anon_sym___mlir_type, ACTIONS 91), (sym_integer, ACTIONS 93), (sym_float, ACTIONS 89),
    (anon_sym_await, ACTIONS 95), (sym_true, ACTIONS 93), (sym_false, ACTIONS 93),
    (sym_none, ACTIONS 93), (sym_comment, ACTIONS 3), (sym_line_continuation, ACTIONS 3),
    (sym__dedent, ACTIONS 129), (sym_string_start, ACTIONS 97)]"

definition parse_table_48 :: "(nat \<times> nat) list" where "parse_table_48 = [
    (sym__statement, STATE 925), (sym__simple_statements, STATE 925),
    (sym_import_statement, STATE 11814), (sym_future_import_statement, STATE 11814),
    (sym_import_from_statement, STATE 11814), (sym_print_statement, STATE 11814),
    (sym_assert_statement, STATE 11814), (sym_comptime_assert_statement, STATE 11814),
    (sym_expression_statement, STATE 11814), (sym_tuple_expression, STATE 12425),
    (sym_named_expression, STATE 7969), (sym__named_expression_lhs, STATE 12752),
    (sym_return_statement, STATE 11814), (sym_delete_statement, STATE 11814),
    (sym_raise_statement, STATE 11814), (sym_pass_statement, STATE 11814),
    (sym_break_statement, STATE 11814), (sym_continue_statement, STATE 11814),
    (sym_extension_definition, STATE 925), (sym_mlir_region, STATE 925),
    (sym_comptime_statement, STATE 925), (sym_if_statement, STATE 925),
    (sym_match_statement, STATE 925), (sym_for_statement, STATE 925),
    (sym_while_statement, STATE 925), (sym_try_statement, STATE 925),
    (sym_with_statement, STATE 925), (sym_function_definition, STATE 925),
    (sym_global_statement, STATE 11814), (sym_nonlocal_statement, STATE 11814),
    (sym_exec_statement, STATE 11814), (sym_type_alias_statement, STATE 11814),
    (sym_parameterized_alias_statement, STATE 11814), (sym_class_definition, STATE 925),
    (sym_trait_definition, STATE 925), (sym_decorated_definition, STATE 925),
    (sym_decorator, STATE 3670), (sym_block, STATE 5326), (sym_pattern, STATE 8086),
    (sym_tuple_pattern, STATE 8101), (sym_list_pattern, STATE 8101),
    (sym_list_splat_pattern, STATE 6819), (sym_as_pattern, STATE 7969),
    (sym_expression, STATE 9883), (sym_primary_expression, STATE 7326),
    (sym_comptime_expression, STATE 7017), (sym_transfer_expression, STATE 7017),
    (sym_not_operator, STATE 7969), (sym_boolean_operator, STATE 7969),
    (sym_binary_operator, STATE 7017), (sym_unary_operator, STATE 7017),
    (sym_comparison_operator, STATE 7969), (sym_lambda, STATE 7969),
    (sym_assignment, STATE 12425), (sym_augmented_assignment, STATE 12425),
    (sym_pattern_list, STATE 8578), (sym_yield, STATE 12425), (sym_attribute, STATE 6836),
    (sym_subscript, STATE 6838), (sym_call, STATE 6845), (sym_mlir_type, STATE 7017),
    (sym_list, STATE 7017), (sym_set, STATE 7017), (sym_tuple, STATE 7017),
    (sym_dictionary, STATE 7017), (sym_struct_literal, STATE 7017),
    (sym_list_comprehension, STATE 7017), (sym_dictionary_comprehension, STATE 7017),
    (sym_set_comprehension, STATE 7017), (sym_generator_expression, STATE 7017),
    (sym_parenthesized_expression, STATE 7017), (sym_conditional_expression, STATE 7969),
    (sym_concatenated_string, STATE 7017), (sym_string, STATE 6751), (sym_await, STATE 7017),
    (aux_sym_module_repeat1, STATE 925), (aux_sym_decorated_definition_repeat1, STATE 3670),
    (sym_identifier, ACTIONS 9), (anon_sym_import, ACTIONS 11), (anon_sym_from, ACTIONS 13),
    (anon_sym_LPAREN, ACTIONS 15), (anon_sym_STAR, ACTIONS 17), (anon_sym_print, ACTIONS 19),
    (anon_sym_comptime, ACTIONS 99), (anon_sym_assert, ACTIONS 23),
    (anon_sym___comptime_assert, ACTIONS 25), (anon_sym_return, ACTIONS 27),
    (anon_sym_del, ACTIONS 29), (anon_sym_raise, ACTIONS 31), (anon_sym_pass, ACTIONS 33),
    (anon_sym_break, ACTIONS 35), (anon_sym_continue, ACTIONS 37),
    (anon_sym___extension, ACTIONS 101), (anon_sym___mlir_region, ACTIONS 103),
    (anon_sym_if, ACTIONS 105), (anon_sym_match, ACTIONS 107), (anon_sym_async, ACTIONS 109),
    (anon_sym_for, ACTIONS 111), (anon_sym_while, ACTIONS 113), (anon_sym_try, ACTIONS 115),
    (anon_sym_with, ACTIONS 117), (anon_sym_def, ACTIONS 119), (anon_sym_fn, ACTIONS 119),
    (anon_sym_LBRACK, ACTIONS 59), (anon_sym_LBRACE, ACTIONS 61), (anon_sym_global, ACTIONS 63),
    (anon_sym_nonlocal, ACTIONS 65), (anon_sym_exec, ACTIONS 67), (anon_sym_type, ACTIONS 69),
    (anon_sym_class, ACTIONS 121), (anon_sym_struct, ACTIONS 121), (anon_sym_mut, ACTIONS 73),
    (anon_sym_out, ACTIONS 73), (anon_sym_trait, ACTIONS 123), (anon_sym_AT, ACTIONS 77),
    (anon_sym_DASH, ACTIONS 79), (anon_sym_PLUS, ACTIONS 79), (anon_sym_ref, ACTIONS 81),
    (anon_sym_var, ACTIONS 81), (anon_sym_not, ACTIONS 83), (anon_sym_TILDE, ACTIONS 79),
    (anon_sym_lambda, ACTIONS 85), (anon_sym_yield, ACTIONS 87), (sym_ellipsis, ACTIONS 89),
    (anon_sym___mlir_type, ACTIONS 91), (sym_integer, ACTIONS 93), (sym_float, ACTIONS 89),
    (anon_sym_await, ACTIONS 95), (sym_true, ACTIONS 93), (sym_false, ACTIONS 93),
    (sym_none, ACTIONS 93), (sym_comment, ACTIONS 3), (sym_line_continuation, ACTIONS 3),
    (sym__dedent, ACTIONS 129), (sym_string_start, ACTIONS 97)]"

definition parse_table_49 :: "(nat \<times> nat) list" where "parse_table_49 = [
    (sym__statement, STATE 925), (sym__simple_statements, STATE 925),
    (sym_import_statement, STATE 11814), (sym_future_import_statement, STATE 11814),
    (sym_import_from_statement, STATE 11814), (sym_print_statement, STATE 11814),
    (sym_assert_statement, STATE 11814), (sym_comptime_assert_statement, STATE 11814),
    (sym_expression_statement, STATE 11814), (sym_tuple_expression, STATE 12425),
    (sym_named_expression, STATE 7969), (sym__named_expression_lhs, STATE 12752),
    (sym_return_statement, STATE 11814), (sym_delete_statement, STATE 11814),
    (sym_raise_statement, STATE 11814), (sym_pass_statement, STATE 11814),
    (sym_break_statement, STATE 11814), (sym_continue_statement, STATE 11814),
    (sym_extension_definition, STATE 925), (sym_mlir_region, STATE 925),
    (sym_comptime_statement, STATE 925), (sym_if_statement, STATE 925),
    (sym_match_statement, STATE 925), (sym_for_statement, STATE 925),
    (sym_while_statement, STATE 925), (sym_try_statement, STATE 925),
    (sym_with_statement, STATE 925), (sym_function_definition, STATE 925),
    (sym_global_statement, STATE 11814), (sym_nonlocal_statement, STATE 11814),
    (sym_exec_statement, STATE 11814), (sym_type_alias_statement, STATE 11814),
    (sym_parameterized_alias_statement, STATE 11814), (sym_class_definition, STATE 925),
    (sym_trait_definition, STATE 925), (sym_decorated_definition, STATE 925),
    (sym_decorator, STATE 3670), (sym_block, STATE 5407), (sym_pattern, STATE 8086),
    (sym_tuple_pattern, STATE 8101), (sym_list_pattern, STATE 8101),
    (sym_list_splat_pattern, STATE 6819), (sym_as_pattern, STATE 7969),
    (sym_expression, STATE 9883), (sym_primary_expression, STATE 7326),
    (sym_comptime_expression, STATE 7017), (sym_transfer_expression, STATE 7017),
    (sym_not_operator, STATE 7969), (sym_boolean_operator, STATE 7969),
    (sym_binary_operator, STATE 7017), (sym_unary_operator, STATE 7017),
    (sym_comparison_operator, STATE 7969), (sym_lambda, STATE 7969),
    (sym_assignment, STATE 12425), (sym_augmented_assignment, STATE 12425),
    (sym_pattern_list, STATE 8578), (sym_yield, STATE 12425), (sym_attribute, STATE 6836),
    (sym_subscript, STATE 6838), (sym_call, STATE 6845), (sym_mlir_type, STATE 7017),
    (sym_list, STATE 7017), (sym_set, STATE 7017), (sym_tuple, STATE 7017),
    (sym_dictionary, STATE 7017), (sym_struct_literal, STATE 7017),
    (sym_list_comprehension, STATE 7017), (sym_dictionary_comprehension, STATE 7017),
    (sym_set_comprehension, STATE 7017), (sym_generator_expression, STATE 7017),
    (sym_parenthesized_expression, STATE 7017), (sym_conditional_expression, STATE 7969),
    (sym_concatenated_string, STATE 7017), (sym_string, STATE 6751), (sym_await, STATE 7017),
    (aux_sym_module_repeat1, STATE 925), (aux_sym_decorated_definition_repeat1, STATE 3670),
    (sym_identifier, ACTIONS 9), (anon_sym_import, ACTIONS 11), (anon_sym_from, ACTIONS 13),
    (anon_sym_LPAREN, ACTIONS 15), (anon_sym_STAR, ACTIONS 17), (anon_sym_print, ACTIONS 19),
    (anon_sym_comptime, ACTIONS 99), (anon_sym_assert, ACTIONS 23),
    (anon_sym___comptime_assert, ACTIONS 25), (anon_sym_return, ACTIONS 27),
    (anon_sym_del, ACTIONS 29), (anon_sym_raise, ACTIONS 31), (anon_sym_pass, ACTIONS 33),
    (anon_sym_break, ACTIONS 35), (anon_sym_continue, ACTIONS 37),
    (anon_sym___extension, ACTIONS 101), (anon_sym___mlir_region, ACTIONS 103),
    (anon_sym_if, ACTIONS 105), (anon_sym_match, ACTIONS 107), (anon_sym_async, ACTIONS 109),
    (anon_sym_for, ACTIONS 111), (anon_sym_while, ACTIONS 113), (anon_sym_try, ACTIONS 115),
    (anon_sym_with, ACTIONS 117), (anon_sym_def, ACTIONS 119), (anon_sym_fn, ACTIONS 119),
    (anon_sym_LBRACK, ACTIONS 59), (anon_sym_LBRACE, ACTIONS 61), (anon_sym_global, ACTIONS 63),
    (anon_sym_nonlocal, ACTIONS 65), (anon_sym_exec, ACTIONS 67), (anon_sym_type, ACTIONS 69),
    (anon_sym_class, ACTIONS 121), (anon_sym_struct, ACTIONS 121), (anon_sym_mut, ACTIONS 73),
    (anon_sym_out, ACTIONS 73), (anon_sym_trait, ACTIONS 123), (anon_sym_AT, ACTIONS 77),
    (anon_sym_DASH, ACTIONS 79), (anon_sym_PLUS, ACTIONS 79), (anon_sym_ref, ACTIONS 81),
    (anon_sym_var, ACTIONS 81), (anon_sym_not, ACTIONS 83), (anon_sym_TILDE, ACTIONS 79),
    (anon_sym_lambda, ACTIONS 85), (anon_sym_yield, ACTIONS 87), (sym_ellipsis, ACTIONS 89),
    (anon_sym___mlir_type, ACTIONS 91), (sym_integer, ACTIONS 93), (sym_float, ACTIONS 89),
    (anon_sym_await, ACTIONS 95), (sym_true, ACTIONS 93), (sym_false, ACTIONS 93),
    (sym_none, ACTIONS 93), (sym_comment, ACTIONS 3), (sym_line_continuation, ACTIONS 3),
    (sym__dedent, ACTIONS 129), (sym_string_start, ACTIONS 97)]"

definition parse_table_50 :: "(nat \<times> nat) list" where "parse_table_50 = [
    (sym__statement, STATE 925), (sym__simple_statements, STATE 925),
    (sym_import_statement, STATE 11814), (sym_future_import_statement, STATE 11814),
    (sym_import_from_statement, STATE 11814), (sym_print_statement, STATE 11814),
    (sym_assert_statement, STATE 11814), (sym_comptime_assert_statement, STATE 11814),
    (sym_expression_statement, STATE 11814), (sym_tuple_expression, STATE 12425),
    (sym_named_expression, STATE 7969), (sym__named_expression_lhs, STATE 12752),
    (sym_return_statement, STATE 11814), (sym_delete_statement, STATE 11814),
    (sym_raise_statement, STATE 11814), (sym_pass_statement, STATE 11814),
    (sym_break_statement, STATE 11814), (sym_continue_statement, STATE 11814),
    (sym_extension_definition, STATE 925), (sym_mlir_region, STATE 925),
    (sym_comptime_statement, STATE 925), (sym_if_statement, STATE 925),
    (sym_match_statement, STATE 925), (sym_for_statement, STATE 925),
    (sym_while_statement, STATE 925), (sym_try_statement, STATE 925),
    (sym_with_statement, STATE 925), (sym_function_definition, STATE 925),
    (sym_global_statement, STATE 11814), (sym_nonlocal_statement, STATE 11814),
    (sym_exec_statement, STATE 11814), (sym_type_alias_statement, STATE 11814),
    (sym_parameterized_alias_statement, STATE 11814), (sym_class_definition, STATE 925),
    (sym_trait_definition, STATE 925), (sym_decorated_definition, STATE 925),
    (sym_decorator, STATE 3670), (sym_block, STATE 5420), (sym_pattern, STATE 8086),
    (sym_tuple_pattern, STATE 8101), (sym_list_pattern, STATE 8101),
    (sym_list_splat_pattern, STATE 6819), (sym_as_pattern, STATE 7969),
    (sym_expression, STATE 9883), (sym_primary_expression, STATE 7326),
    (sym_comptime_expression, STATE 7017), (sym_transfer_expression, STATE 7017),
    (sym_not_operator, STATE 7969), (sym_boolean_operator, STATE 7969),
    (sym_binary_operator, STATE 7017), (sym_unary_operator, STATE 7017),
    (sym_comparison_operator, STATE 7969), (sym_lambda, STATE 7969),
    (sym_assignment, STATE 12425), (sym_augmented_assignment, STATE 12425),
    (sym_pattern_list, STATE 8578), (sym_yield, STATE 12425), (sym_attribute, STATE 6836),
    (sym_subscript, STATE 6838), (sym_call, STATE 6845), (sym_mlir_type, STATE 7017),
    (sym_list, STATE 7017), (sym_set, STATE 7017), (sym_tuple, STATE 7017),
    (sym_dictionary, STATE 7017), (sym_struct_literal, STATE 7017),
    (sym_list_comprehension, STATE 7017), (sym_dictionary_comprehension, STATE 7017),
    (sym_set_comprehension, STATE 7017), (sym_generator_expression, STATE 7017),
    (sym_parenthesized_expression, STATE 7017), (sym_conditional_expression, STATE 7969),
    (sym_concatenated_string, STATE 7017), (sym_string, STATE 6751), (sym_await, STATE 7017),
    (aux_sym_module_repeat1, STATE 925), (aux_sym_decorated_definition_repeat1, STATE 3670),
    (sym_identifier, ACTIONS 9), (anon_sym_import, ACTIONS 11), (anon_sym_from, ACTIONS 13),
    (anon_sym_LPAREN, ACTIONS 15), (anon_sym_STAR, ACTIONS 17), (anon_sym_print, ACTIONS 19),
    (anon_sym_comptime, ACTIONS 99), (anon_sym_assert, ACTIONS 23),
    (anon_sym___comptime_assert, ACTIONS 25), (anon_sym_return, ACTIONS 27),
    (anon_sym_del, ACTIONS 29), (anon_sym_raise, ACTIONS 31), (anon_sym_pass, ACTIONS 33),
    (anon_sym_break, ACTIONS 35), (anon_sym_continue, ACTIONS 37),
    (anon_sym___extension, ACTIONS 101), (anon_sym___mlir_region, ACTIONS 103),
    (anon_sym_if, ACTIONS 105), (anon_sym_match, ACTIONS 107), (anon_sym_async, ACTIONS 109),
    (anon_sym_for, ACTIONS 111), (anon_sym_while, ACTIONS 113), (anon_sym_try, ACTIONS 115),
    (anon_sym_with, ACTIONS 117), (anon_sym_def, ACTIONS 119), (anon_sym_fn, ACTIONS 119),
    (anon_sym_LBRACK, ACTIONS 59), (anon_sym_LBRACE, ACTIONS 61), (anon_sym_global, ACTIONS 63),
    (anon_sym_nonlocal, ACTIONS 65), (anon_sym_exec, ACTIONS 67), (anon_sym_type, ACTIONS 69),
    (anon_sym_class, ACTIONS 121), (anon_sym_struct, ACTIONS 121), (anon_sym_mut, ACTIONS 73),
    (anon_sym_out, ACTIONS 73), (anon_sym_trait, ACTIONS 123), (anon_sym_AT, ACTIONS 77),
    (anon_sym_DASH, ACTIONS 79), (anon_sym_PLUS, ACTIONS 79), (anon_sym_ref, ACTIONS 81),
    (anon_sym_var, ACTIONS 81), (anon_sym_not, ACTIONS 83), (anon_sym_TILDE, ACTIONS 79),
    (anon_sym_lambda, ACTIONS 85), (anon_sym_yield, ACTIONS 87), (sym_ellipsis, ACTIONS 89),
    (anon_sym___mlir_type, ACTIONS 91), (sym_integer, ACTIONS 93), (sym_float, ACTIONS 89),
    (anon_sym_await, ACTIONS 95), (sym_true, ACTIONS 93), (sym_false, ACTIONS 93),
    (sym_none, ACTIONS 93), (sym_comment, ACTIONS 3), (sym_line_continuation, ACTIONS 3),
    (sym__dedent, ACTIONS 129), (sym_string_start, ACTIONS 97)]"

definition parse_table_51 :: "(nat \<times> nat) list" where "parse_table_51 = [
    (sym__statement, STATE 925), (sym__simple_statements, STATE 925),
    (sym_import_statement, STATE 11814), (sym_future_import_statement, STATE 11814),
    (sym_import_from_statement, STATE 11814), (sym_print_statement, STATE 11814),
    (sym_assert_statement, STATE 11814), (sym_comptime_assert_statement, STATE 11814),
    (sym_expression_statement, STATE 11814), (sym_tuple_expression, STATE 12425),
    (sym_named_expression, STATE 7969), (sym__named_expression_lhs, STATE 12752),
    (sym_return_statement, STATE 11814), (sym_delete_statement, STATE 11814),
    (sym_raise_statement, STATE 11814), (sym_pass_statement, STATE 11814),
    (sym_break_statement, STATE 11814), (sym_continue_statement, STATE 11814),
    (sym_extension_definition, STATE 925), (sym_mlir_region, STATE 925),
    (sym_comptime_statement, STATE 925), (sym_if_statement, STATE 925),
    (sym_match_statement, STATE 925), (sym_for_statement, STATE 925),
    (sym_while_statement, STATE 925), (sym_try_statement, STATE 925),
    (sym_with_statement, STATE 925), (sym_function_definition, STATE 925),
    (sym_global_statement, STATE 11814), (sym_nonlocal_statement, STATE 11814),
    (sym_exec_statement, STATE 11814), (sym_type_alias_statement, STATE 11814),
    (sym_parameterized_alias_statement, STATE 11814), (sym_class_definition, STATE 925),
    (sym_trait_definition, STATE 925), (sym_decorated_definition, STATE 925),
    (sym_decorator, STATE 3670), (sym_block, STATE 5437), (sym_pattern, STATE 8086),
    (sym_tuple_pattern, STATE 8101), (sym_list_pattern, STATE 8101),
    (sym_list_splat_pattern, STATE 6819), (sym_as_pattern, STATE 7969),
    (sym_expression, STATE 9883), (sym_primary_expression, STATE 7326),
    (sym_comptime_expression, STATE 7017), (sym_transfer_expression, STATE 7017),
    (sym_not_operator, STATE 7969), (sym_boolean_operator, STATE 7969),
    (sym_binary_operator, STATE 7017), (sym_unary_operator, STATE 7017),
    (sym_comparison_operator, STATE 7969), (sym_lambda, STATE 7969),
    (sym_assignment, STATE 12425), (sym_augmented_assignment, STATE 12425),
    (sym_pattern_list, STATE 8578), (sym_yield, STATE 12425), (sym_attribute, STATE 6836),
    (sym_subscript, STATE 6838), (sym_call, STATE 6845), (sym_mlir_type, STATE 7017),
    (sym_list, STATE 7017), (sym_set, STATE 7017), (sym_tuple, STATE 7017),
    (sym_dictionary, STATE 7017), (sym_struct_literal, STATE 7017),
    (sym_list_comprehension, STATE 7017), (sym_dictionary_comprehension, STATE 7017),
    (sym_set_comprehension, STATE 7017), (sym_generator_expression, STATE 7017),
    (sym_parenthesized_expression, STATE 7017), (sym_conditional_expression, STATE 7969),
    (sym_concatenated_string, STATE 7017), (sym_string, STATE 6751), (sym_await, STATE 7017),
    (aux_sym_module_repeat1, STATE 925), (aux_sym_decorated_definition_repeat1, STATE 3670),
    (sym_identifier, ACTIONS 9), (anon_sym_import, ACTIONS 11), (anon_sym_from, ACTIONS 13),
    (anon_sym_LPAREN, ACTIONS 15), (anon_sym_STAR, ACTIONS 17), (anon_sym_print, ACTIONS 19),
    (anon_sym_comptime, ACTIONS 99), (anon_sym_assert, ACTIONS 23),
    (anon_sym___comptime_assert, ACTIONS 25), (anon_sym_return, ACTIONS 27),
    (anon_sym_del, ACTIONS 29), (anon_sym_raise, ACTIONS 31), (anon_sym_pass, ACTIONS 33),
    (anon_sym_break, ACTIONS 35), (anon_sym_continue, ACTIONS 37),
    (anon_sym___extension, ACTIONS 101), (anon_sym___mlir_region, ACTIONS 103),
    (anon_sym_if, ACTIONS 105), (anon_sym_match, ACTIONS 107), (anon_sym_async, ACTIONS 109),
    (anon_sym_for, ACTIONS 111), (anon_sym_while, ACTIONS 113), (anon_sym_try, ACTIONS 115),
    (anon_sym_with, ACTIONS 117), (anon_sym_def, ACTIONS 119), (anon_sym_fn, ACTIONS 119),
    (anon_sym_LBRACK, ACTIONS 59), (anon_sym_LBRACE, ACTIONS 61), (anon_sym_global, ACTIONS 63),
    (anon_sym_nonlocal, ACTIONS 65), (anon_sym_exec, ACTIONS 67), (anon_sym_type, ACTIONS 69),
    (anon_sym_class, ACTIONS 121), (anon_sym_struct, ACTIONS 121), (anon_sym_mut, ACTIONS 73),
    (anon_sym_out, ACTIONS 73), (anon_sym_trait, ACTIONS 123), (anon_sym_AT, ACTIONS 77),
    (anon_sym_DASH, ACTIONS 79), (anon_sym_PLUS, ACTIONS 79), (anon_sym_ref, ACTIONS 81),
    (anon_sym_var, ACTIONS 81), (anon_sym_not, ACTIONS 83), (anon_sym_TILDE, ACTIONS 79),
    (anon_sym_lambda, ACTIONS 85), (anon_sym_yield, ACTIONS 87), (sym_ellipsis, ACTIONS 89),
    (anon_sym___mlir_type, ACTIONS 91), (sym_integer, ACTIONS 93), (sym_float, ACTIONS 89),
    (anon_sym_await, ACTIONS 95), (sym_true, ACTIONS 93), (sym_false, ACTIONS 93),
    (sym_none, ACTIONS 93), (sym_comment, ACTIONS 3), (sym_line_continuation, ACTIONS 3),
    (sym__dedent, ACTIONS 129), (sym_string_start, ACTIONS 97)]"

definition parse_table_52 :: "(nat \<times> nat) list" where "parse_table_52 = [
    (sym__statement, STATE 925), (sym__simple_statements, STATE 925),
    (sym_import_statement, STATE 11814), (sym_future_import_statement, STATE 11814),
    (sym_import_from_statement, STATE 11814), (sym_print_statement, STATE 11814),
    (sym_assert_statement, STATE 11814), (sym_comptime_assert_statement, STATE 11814),
    (sym_expression_statement, STATE 11814), (sym_tuple_expression, STATE 12425),
    (sym_named_expression, STATE 7969), (sym__named_expression_lhs, STATE 12752),
    (sym_return_statement, STATE 11814), (sym_delete_statement, STATE 11814),
    (sym_raise_statement, STATE 11814), (sym_pass_statement, STATE 11814),
    (sym_break_statement, STATE 11814), (sym_continue_statement, STATE 11814),
    (sym_extension_definition, STATE 925), (sym_mlir_region, STATE 925),
    (sym_comptime_statement, STATE 925), (sym_if_statement, STATE 925),
    (sym_match_statement, STATE 925), (sym_for_statement, STATE 925),
    (sym_while_statement, STATE 925), (sym_try_statement, STATE 925),
    (sym_with_statement, STATE 925), (sym_function_definition, STATE 925),
    (sym_global_statement, STATE 11814), (sym_nonlocal_statement, STATE 11814),
    (sym_exec_statement, STATE 11814), (sym_type_alias_statement, STATE 11814),
    (sym_parameterized_alias_statement, STATE 11814), (sym_class_definition, STATE 925),
    (sym_trait_definition, STATE 925), (sym_decorated_definition, STATE 925),
    (sym_decorator, STATE 3670), (sym_block, STATE 5455), (sym_pattern, STATE 8086),
    (sym_tuple_pattern, STATE 8101), (sym_list_pattern, STATE 8101),
    (sym_list_splat_pattern, STATE 6819), (sym_as_pattern, STATE 7969),
    (sym_expression, STATE 9883), (sym_primary_expression, STATE 7326),
    (sym_comptime_expression, STATE 7017), (sym_transfer_expression, STATE 7017),
    (sym_not_operator, STATE 7969), (sym_boolean_operator, STATE 7969),
    (sym_binary_operator, STATE 7017), (sym_unary_operator, STATE 7017),
    (sym_comparison_operator, STATE 7969), (sym_lambda, STATE 7969),
    (sym_assignment, STATE 12425), (sym_augmented_assignment, STATE 12425),
    (sym_pattern_list, STATE 8578), (sym_yield, STATE 12425), (sym_attribute, STATE 6836),
    (sym_subscript, STATE 6838), (sym_call, STATE 6845), (sym_mlir_type, STATE 7017),
    (sym_list, STATE 7017), (sym_set, STATE 7017), (sym_tuple, STATE 7017),
    (sym_dictionary, STATE 7017), (sym_struct_literal, STATE 7017),
    (sym_list_comprehension, STATE 7017), (sym_dictionary_comprehension, STATE 7017),
    (sym_set_comprehension, STATE 7017), (sym_generator_expression, STATE 7017),
    (sym_parenthesized_expression, STATE 7017), (sym_conditional_expression, STATE 7969),
    (sym_concatenated_string, STATE 7017), (sym_string, STATE 6751), (sym_await, STATE 7017),
    (aux_sym_module_repeat1, STATE 925), (aux_sym_decorated_definition_repeat1, STATE 3670),
    (sym_identifier, ACTIONS 9), (anon_sym_import, ACTIONS 11), (anon_sym_from, ACTIONS 13),
    (anon_sym_LPAREN, ACTIONS 15), (anon_sym_STAR, ACTIONS 17), (anon_sym_print, ACTIONS 19),
    (anon_sym_comptime, ACTIONS 99), (anon_sym_assert, ACTIONS 23),
    (anon_sym___comptime_assert, ACTIONS 25), (anon_sym_return, ACTIONS 27),
    (anon_sym_del, ACTIONS 29), (anon_sym_raise, ACTIONS 31), (anon_sym_pass, ACTIONS 33),
    (anon_sym_break, ACTIONS 35), (anon_sym_continue, ACTIONS 37),
    (anon_sym___extension, ACTIONS 101), (anon_sym___mlir_region, ACTIONS 103),
    (anon_sym_if, ACTIONS 105), (anon_sym_match, ACTIONS 107), (anon_sym_async, ACTIONS 109),
    (anon_sym_for, ACTIONS 111), (anon_sym_while, ACTIONS 113), (anon_sym_try, ACTIONS 115),
    (anon_sym_with, ACTIONS 117), (anon_sym_def, ACTIONS 119), (anon_sym_fn, ACTIONS 119),
    (anon_sym_LBRACK, ACTIONS 59), (anon_sym_LBRACE, ACTIONS 61), (anon_sym_global, ACTIONS 63),
    (anon_sym_nonlocal, ACTIONS 65), (anon_sym_exec, ACTIONS 67), (anon_sym_type, ACTIONS 69),
    (anon_sym_class, ACTIONS 121), (anon_sym_struct, ACTIONS 121), (anon_sym_mut, ACTIONS 73),
    (anon_sym_out, ACTIONS 73), (anon_sym_trait, ACTIONS 123), (anon_sym_AT, ACTIONS 77),
    (anon_sym_DASH, ACTIONS 79), (anon_sym_PLUS, ACTIONS 79), (anon_sym_ref, ACTIONS 81),
    (anon_sym_var, ACTIONS 81), (anon_sym_not, ACTIONS 83), (anon_sym_TILDE, ACTIONS 79),
    (anon_sym_lambda, ACTIONS 85), (anon_sym_yield, ACTIONS 87), (sym_ellipsis, ACTIONS 89),
    (anon_sym___mlir_type, ACTIONS 91), (sym_integer, ACTIONS 93), (sym_float, ACTIONS 89),
    (anon_sym_await, ACTIONS 95), (sym_true, ACTIONS 93), (sym_false, ACTIONS 93),
    (sym_none, ACTIONS 93), (sym_comment, ACTIONS 3), (sym_line_continuation, ACTIONS 3),
    (sym__dedent, ACTIONS 129), (sym_string_start, ACTIONS 97)]"

definition parse_table_53 :: "(nat \<times> nat) list" where "parse_table_53 = [
    (sym__statement, STATE 925), (sym__simple_statements, STATE 925),
    (sym_import_statement, STATE 11814), (sym_future_import_statement, STATE 11814),
    (sym_import_from_statement, STATE 11814), (sym_print_statement, STATE 11814),
    (sym_assert_statement, STATE 11814), (sym_comptime_assert_statement, STATE 11814),
    (sym_expression_statement, STATE 11814), (sym_tuple_expression, STATE 12425),
    (sym_named_expression, STATE 7969), (sym__named_expression_lhs, STATE 12752),
    (sym_return_statement, STATE 11814), (sym_delete_statement, STATE 11814),
    (sym_raise_statement, STATE 11814), (sym_pass_statement, STATE 11814),
    (sym_break_statement, STATE 11814), (sym_continue_statement, STATE 11814),
    (sym_extension_definition, STATE 925), (sym_mlir_region, STATE 925),
    (sym_comptime_statement, STATE 925), (sym_if_statement, STATE 925),
    (sym_match_statement, STATE 925), (sym_for_statement, STATE 925),
    (sym_while_statement, STATE 925), (sym_try_statement, STATE 925),
    (sym_with_statement, STATE 925), (sym_function_definition, STATE 925),
    (sym_global_statement, STATE 11814), (sym_nonlocal_statement, STATE 11814),
    (sym_exec_statement, STATE 11814), (sym_type_alias_statement, STATE 11814),
    (sym_parameterized_alias_statement, STATE 11814), (sym_class_definition, STATE 925),
    (sym_trait_definition, STATE 925), (sym_decorated_definition, STATE 925),
    (sym_decorator, STATE 3670), (sym_block, STATE 5458), (sym_pattern, STATE 8086),
    (sym_tuple_pattern, STATE 8101), (sym_list_pattern, STATE 8101),
    (sym_list_splat_pattern, STATE 6819), (sym_as_pattern, STATE 7969),
    (sym_expression, STATE 9883), (sym_primary_expression, STATE 7326),
    (sym_comptime_expression, STATE 7017), (sym_transfer_expression, STATE 7017),
    (sym_not_operator, STATE 7969), (sym_boolean_operator, STATE 7969),
    (sym_binary_operator, STATE 7017), (sym_unary_operator, STATE 7017),
    (sym_comparison_operator, STATE 7969), (sym_lambda, STATE 7969),
    (sym_assignment, STATE 12425), (sym_augmented_assignment, STATE 12425),
    (sym_pattern_list, STATE 8578), (sym_yield, STATE 12425), (sym_attribute, STATE 6836),
    (sym_subscript, STATE 6838), (sym_call, STATE 6845), (sym_mlir_type, STATE 7017),
    (sym_list, STATE 7017), (sym_set, STATE 7017), (sym_tuple, STATE 7017),
    (sym_dictionary, STATE 7017), (sym_struct_literal, STATE 7017),
    (sym_list_comprehension, STATE 7017), (sym_dictionary_comprehension, STATE 7017),
    (sym_set_comprehension, STATE 7017), (sym_generator_expression, STATE 7017),
    (sym_parenthesized_expression, STATE 7017), (sym_conditional_expression, STATE 7969),
    (sym_concatenated_string, STATE 7017), (sym_string, STATE 6751), (sym_await, STATE 7017),
    (aux_sym_module_repeat1, STATE 925), (aux_sym_decorated_definition_repeat1, STATE 3670),
    (sym_identifier, ACTIONS 9), (anon_sym_import, ACTIONS 11), (anon_sym_from, ACTIONS 13),
    (anon_sym_LPAREN, ACTIONS 15), (anon_sym_STAR, ACTIONS 17), (anon_sym_print, ACTIONS 19),
    (anon_sym_comptime, ACTIONS 99), (anon_sym_assert, ACTIONS 23),
    (anon_sym___comptime_assert, ACTIONS 25), (anon_sym_return, ACTIONS 27),
    (anon_sym_del, ACTIONS 29), (anon_sym_raise, ACTIONS 31), (anon_sym_pass, ACTIONS 33),
    (anon_sym_break, ACTIONS 35), (anon_sym_continue, ACTIONS 37),
    (anon_sym___extension, ACTIONS 101), (anon_sym___mlir_region, ACTIONS 103),
    (anon_sym_if, ACTIONS 105), (anon_sym_match, ACTIONS 107), (anon_sym_async, ACTIONS 109),
    (anon_sym_for, ACTIONS 111), (anon_sym_while, ACTIONS 113), (anon_sym_try, ACTIONS 115),
    (anon_sym_with, ACTIONS 117), (anon_sym_def, ACTIONS 119), (anon_sym_fn, ACTIONS 119),
    (anon_sym_LBRACK, ACTIONS 59), (anon_sym_LBRACE, ACTIONS 61), (anon_sym_global, ACTIONS 63),
    (anon_sym_nonlocal, ACTIONS 65), (anon_sym_exec, ACTIONS 67), (anon_sym_type, ACTIONS 69),
    (anon_sym_class, ACTIONS 121), (anon_sym_struct, ACTIONS 121), (anon_sym_mut, ACTIONS 73),
    (anon_sym_out, ACTIONS 73), (anon_sym_trait, ACTIONS 123), (anon_sym_AT, ACTIONS 77),
    (anon_sym_DASH, ACTIONS 79), (anon_sym_PLUS, ACTIONS 79), (anon_sym_ref, ACTIONS 81),
    (anon_sym_var, ACTIONS 81), (anon_sym_not, ACTIONS 83), (anon_sym_TILDE, ACTIONS 79),
    (anon_sym_lambda, ACTIONS 85), (anon_sym_yield, ACTIONS 87), (sym_ellipsis, ACTIONS 89),
    (anon_sym___mlir_type, ACTIONS 91), (sym_integer, ACTIONS 93), (sym_float, ACTIONS 89),
    (anon_sym_await, ACTIONS 95), (sym_true, ACTIONS 93), (sym_false, ACTIONS 93),
    (sym_none, ACTIONS 93), (sym_comment, ACTIONS 3), (sym_line_continuation, ACTIONS 3),
    (sym__dedent, ACTIONS 129), (sym_string_start, ACTIONS 97)]"

definition parse_table_54 :: "(nat \<times> nat) list" where "parse_table_54 = [
    (sym__statement, STATE 925), (sym__simple_statements, STATE 925),
    (sym_import_statement, STATE 11814), (sym_future_import_statement, STATE 11814),
    (sym_import_from_statement, STATE 11814), (sym_print_statement, STATE 11814),
    (sym_assert_statement, STATE 11814), (sym_comptime_assert_statement, STATE 11814),
    (sym_expression_statement, STATE 11814), (sym_tuple_expression, STATE 12425),
    (sym_named_expression, STATE 7969), (sym__named_expression_lhs, STATE 12752),
    (sym_return_statement, STATE 11814), (sym_delete_statement, STATE 11814),
    (sym_raise_statement, STATE 11814), (sym_pass_statement, STATE 11814),
    (sym_break_statement, STATE 11814), (sym_continue_statement, STATE 11814),
    (sym_extension_definition, STATE 925), (sym_mlir_region, STATE 925),
    (sym_comptime_statement, STATE 925), (sym_if_statement, STATE 925),
    (sym_match_statement, STATE 925), (sym_for_statement, STATE 925),
    (sym_while_statement, STATE 925), (sym_try_statement, STATE 925),
    (sym_with_statement, STATE 925), (sym_function_definition, STATE 925),
    (sym_global_statement, STATE 11814), (sym_nonlocal_statement, STATE 11814),
    (sym_exec_statement, STATE 11814), (sym_type_alias_statement, STATE 11814),
    (sym_parameterized_alias_statement, STATE 11814), (sym_class_definition, STATE 925),
    (sym_trait_definition, STATE 925), (sym_decorated_definition, STATE 925),
    (sym_decorator, STATE 3670), (sym_block, STATE 5472), (sym_pattern, STATE 8086),
    (sym_tuple_pattern, STATE 8101), (sym_list_pattern, STATE 8101),
    (sym_list_splat_pattern, STATE 6819), (sym_as_pattern, STATE 7969),
    (sym_expression, STATE 9883), (sym_primary_expression, STATE 7326),
    (sym_comptime_expression, STATE 7017), (sym_transfer_expression, STATE 7017),
    (sym_not_operator, STATE 7969), (sym_boolean_operator, STATE 7969),
    (sym_binary_operator, STATE 7017), (sym_unary_operator, STATE 7017),
    (sym_comparison_operator, STATE 7969), (sym_lambda, STATE 7969),
    (sym_assignment, STATE 12425), (sym_augmented_assignment, STATE 12425),
    (sym_pattern_list, STATE 8578), (sym_yield, STATE 12425), (sym_attribute, STATE 6836),
    (sym_subscript, STATE 6838), (sym_call, STATE 6845), (sym_mlir_type, STATE 7017),
    (sym_list, STATE 7017), (sym_set, STATE 7017), (sym_tuple, STATE 7017),
    (sym_dictionary, STATE 7017), (sym_struct_literal, STATE 7017),
    (sym_list_comprehension, STATE 7017), (sym_dictionary_comprehension, STATE 7017),
    (sym_set_comprehension, STATE 7017), (sym_generator_expression, STATE 7017),
    (sym_parenthesized_expression, STATE 7017), (sym_conditional_expression, STATE 7969),
    (sym_concatenated_string, STATE 7017), (sym_string, STATE 6751), (sym_await, STATE 7017),
    (aux_sym_module_repeat1, STATE 925), (aux_sym_decorated_definition_repeat1, STATE 3670),
    (sym_identifier, ACTIONS 9), (anon_sym_import, ACTIONS 11), (anon_sym_from, ACTIONS 13),
    (anon_sym_LPAREN, ACTIONS 15), (anon_sym_STAR, ACTIONS 17), (anon_sym_print, ACTIONS 19),
    (anon_sym_comptime, ACTIONS 99), (anon_sym_assert, ACTIONS 23),
    (anon_sym___comptime_assert, ACTIONS 25), (anon_sym_return, ACTIONS 27),
    (anon_sym_del, ACTIONS 29), (anon_sym_raise, ACTIONS 31), (anon_sym_pass, ACTIONS 33),
    (anon_sym_break, ACTIONS 35), (anon_sym_continue, ACTIONS 37),
    (anon_sym___extension, ACTIONS 101), (anon_sym___mlir_region, ACTIONS 103),
    (anon_sym_if, ACTIONS 105), (anon_sym_match, ACTIONS 107), (anon_sym_async, ACTIONS 109),
    (anon_sym_for, ACTIONS 111), (anon_sym_while, ACTIONS 113), (anon_sym_try, ACTIONS 115),
    (anon_sym_with, ACTIONS 117), (anon_sym_def, ACTIONS 119), (anon_sym_fn, ACTIONS 119),
    (anon_sym_LBRACK, ACTIONS 59), (anon_sym_LBRACE, ACTIONS 61), (anon_sym_global, ACTIONS 63),
    (anon_sym_nonlocal, ACTIONS 65), (anon_sym_exec, ACTIONS 67), (anon_sym_type, ACTIONS 69),
    (anon_sym_class, ACTIONS 121), (anon_sym_struct, ACTIONS 121), (anon_sym_mut, ACTIONS 73),
    (anon_sym_out, ACTIONS 73), (anon_sym_trait, ACTIONS 123), (anon_sym_AT, ACTIONS 77),
    (anon_sym_DASH, ACTIONS 79), (anon_sym_PLUS, ACTIONS 79), (anon_sym_ref, ACTIONS 81),
    (anon_sym_var, ACTIONS 81), (anon_sym_not, ACTIONS 83), (anon_sym_TILDE, ACTIONS 79),
    (anon_sym_lambda, ACTIONS 85), (anon_sym_yield, ACTIONS 87), (sym_ellipsis, ACTIONS 89),
    (anon_sym___mlir_type, ACTIONS 91), (sym_integer, ACTIONS 93), (sym_float, ACTIONS 89),
    (anon_sym_await, ACTIONS 95), (sym_true, ACTIONS 93), (sym_false, ACTIONS 93),
    (sym_none, ACTIONS 93), (sym_comment, ACTIONS 3), (sym_line_continuation, ACTIONS 3),
    (sym__dedent, ACTIONS 129), (sym_string_start, ACTIONS 97)]"

definition parse_table_55 :: "(nat \<times> nat) list" where "parse_table_55 = [
    (sym__statement, STATE 925), (sym__simple_statements, STATE 925),
    (sym_import_statement, STATE 11814), (sym_future_import_statement, STATE 11814),
    (sym_import_from_statement, STATE 11814), (sym_print_statement, STATE 11814),
    (sym_assert_statement, STATE 11814), (sym_comptime_assert_statement, STATE 11814),
    (sym_expression_statement, STATE 11814), (sym_tuple_expression, STATE 12425),
    (sym_named_expression, STATE 7969), (sym__named_expression_lhs, STATE 12752),
    (sym_return_statement, STATE 11814), (sym_delete_statement, STATE 11814),
    (sym_raise_statement, STATE 11814), (sym_pass_statement, STATE 11814),
    (sym_break_statement, STATE 11814), (sym_continue_statement, STATE 11814),
    (sym_extension_definition, STATE 925), (sym_mlir_region, STATE 925),
    (sym_comptime_statement, STATE 925), (sym_if_statement, STATE 925),
    (sym_match_statement, STATE 925), (sym_for_statement, STATE 925),
    (sym_while_statement, STATE 925), (sym_try_statement, STATE 925),
    (sym_with_statement, STATE 925), (sym_function_definition, STATE 925),
    (sym_global_statement, STATE 11814), (sym_nonlocal_statement, STATE 11814),
    (sym_exec_statement, STATE 11814), (sym_type_alias_statement, STATE 11814),
    (sym_parameterized_alias_statement, STATE 11814), (sym_class_definition, STATE 925),
    (sym_trait_definition, STATE 925), (sym_decorated_definition, STATE 925),
    (sym_decorator, STATE 3670), (sym_block, STATE 5489), (sym_pattern, STATE 8086),
    (sym_tuple_pattern, STATE 8101), (sym_list_pattern, STATE 8101),
    (sym_list_splat_pattern, STATE 6819), (sym_as_pattern, STATE 7969),
    (sym_expression, STATE 9883), (sym_primary_expression, STATE 7326),
    (sym_comptime_expression, STATE 7017), (sym_transfer_expression, STATE 7017),
    (sym_not_operator, STATE 7969), (sym_boolean_operator, STATE 7969),
    (sym_binary_operator, STATE 7017), (sym_unary_operator, STATE 7017),
    (sym_comparison_operator, STATE 7969), (sym_lambda, STATE 7969),
    (sym_assignment, STATE 12425), (sym_augmented_assignment, STATE 12425),
    (sym_pattern_list, STATE 8578), (sym_yield, STATE 12425), (sym_attribute, STATE 6836),
    (sym_subscript, STATE 6838), (sym_call, STATE 6845), (sym_mlir_type, STATE 7017),
    (sym_list, STATE 7017), (sym_set, STATE 7017), (sym_tuple, STATE 7017),
    (sym_dictionary, STATE 7017), (sym_struct_literal, STATE 7017),
    (sym_list_comprehension, STATE 7017), (sym_dictionary_comprehension, STATE 7017),
    (sym_set_comprehension, STATE 7017), (sym_generator_expression, STATE 7017),
    (sym_parenthesized_expression, STATE 7017), (sym_conditional_expression, STATE 7969),
    (sym_concatenated_string, STATE 7017), (sym_string, STATE 6751), (sym_await, STATE 7017),
    (aux_sym_module_repeat1, STATE 925), (aux_sym_decorated_definition_repeat1, STATE 3670),
    (sym_identifier, ACTIONS 9), (anon_sym_import, ACTIONS 11), (anon_sym_from, ACTIONS 13),
    (anon_sym_LPAREN, ACTIONS 15), (anon_sym_STAR, ACTIONS 17), (anon_sym_print, ACTIONS 19),
    (anon_sym_comptime, ACTIONS 99), (anon_sym_assert, ACTIONS 23),
    (anon_sym___comptime_assert, ACTIONS 25), (anon_sym_return, ACTIONS 27),
    (anon_sym_del, ACTIONS 29), (anon_sym_raise, ACTIONS 31), (anon_sym_pass, ACTIONS 33),
    (anon_sym_break, ACTIONS 35), (anon_sym_continue, ACTIONS 37),
    (anon_sym___extension, ACTIONS 101), (anon_sym___mlir_region, ACTIONS 103),
    (anon_sym_if, ACTIONS 105), (anon_sym_match, ACTIONS 107), (anon_sym_async, ACTIONS 109),
    (anon_sym_for, ACTIONS 111), (anon_sym_while, ACTIONS 113), (anon_sym_try, ACTIONS 115),
    (anon_sym_with, ACTIONS 117), (anon_sym_def, ACTIONS 119), (anon_sym_fn, ACTIONS 119),
    (anon_sym_LBRACK, ACTIONS 59), (anon_sym_LBRACE, ACTIONS 61), (anon_sym_global, ACTIONS 63),
    (anon_sym_nonlocal, ACTIONS 65), (anon_sym_exec, ACTIONS 67), (anon_sym_type, ACTIONS 69),
    (anon_sym_class, ACTIONS 121), (anon_sym_struct, ACTIONS 121), (anon_sym_mut, ACTIONS 73),
    (anon_sym_out, ACTIONS 73), (anon_sym_trait, ACTIONS 123), (anon_sym_AT, ACTIONS 77),
    (anon_sym_DASH, ACTIONS 79), (anon_sym_PLUS, ACTIONS 79), (anon_sym_ref, ACTIONS 81),
    (anon_sym_var, ACTIONS 81), (anon_sym_not, ACTIONS 83), (anon_sym_TILDE, ACTIONS 79),
    (anon_sym_lambda, ACTIONS 85), (anon_sym_yield, ACTIONS 87), (sym_ellipsis, ACTIONS 89),
    (anon_sym___mlir_type, ACTIONS 91), (sym_integer, ACTIONS 93), (sym_float, ACTIONS 89),
    (anon_sym_await, ACTIONS 95), (sym_true, ACTIONS 93), (sym_false, ACTIONS 93),
    (sym_none, ACTIONS 93), (sym_comment, ACTIONS 3), (sym_line_continuation, ACTIONS 3),
    (sym__dedent, ACTIONS 129), (sym_string_start, ACTIONS 97)]"

definition parse_table_56 :: "(nat \<times> nat) list" where "parse_table_56 = [
    (sym__statement, STATE 925), (sym__simple_statements, STATE 925),
    (sym_import_statement, STATE 11814), (sym_future_import_statement, STATE 11814),
    (sym_import_from_statement, STATE 11814), (sym_print_statement, STATE 11814),
    (sym_assert_statement, STATE 11814), (sym_comptime_assert_statement, STATE 11814),
    (sym_expression_statement, STATE 11814), (sym_tuple_expression, STATE 12425),
    (sym_named_expression, STATE 7969), (sym__named_expression_lhs, STATE 12752),
    (sym_return_statement, STATE 11814), (sym_delete_statement, STATE 11814),
    (sym_raise_statement, STATE 11814), (sym_pass_statement, STATE 11814),
    (sym_break_statement, STATE 11814), (sym_continue_statement, STATE 11814),
    (sym_extension_definition, STATE 925), (sym_mlir_region, STATE 925),
    (sym_comptime_statement, STATE 925), (sym_if_statement, STATE 925),
    (sym_match_statement, STATE 925), (sym_for_statement, STATE 925),
    (sym_while_statement, STATE 925), (sym_try_statement, STATE 925),
    (sym_with_statement, STATE 925), (sym_function_definition, STATE 925),
    (sym_global_statement, STATE 11814), (sym_nonlocal_statement, STATE 11814),
    (sym_exec_statement, STATE 11814), (sym_type_alias_statement, STATE 11814),
    (sym_parameterized_alias_statement, STATE 11814), (sym_class_definition, STATE 925),
    (sym_trait_definition, STATE 925), (sym_decorated_definition, STATE 925),
    (sym_decorator, STATE 3670), (sym_block, STATE 5498), (sym_pattern, STATE 8086),
    (sym_tuple_pattern, STATE 8101), (sym_list_pattern, STATE 8101),
    (sym_list_splat_pattern, STATE 6819), (sym_as_pattern, STATE 7969),
    (sym_expression, STATE 9883), (sym_primary_expression, STATE 7326),
    (sym_comptime_expression, STATE 7017), (sym_transfer_expression, STATE 7017),
    (sym_not_operator, STATE 7969), (sym_boolean_operator, STATE 7969),
    (sym_binary_operator, STATE 7017), (sym_unary_operator, STATE 7017),
    (sym_comparison_operator, STATE 7969), (sym_lambda, STATE 7969),
    (sym_assignment, STATE 12425), (sym_augmented_assignment, STATE 12425),
    (sym_pattern_list, STATE 8578), (sym_yield, STATE 12425), (sym_attribute, STATE 6836),
    (sym_subscript, STATE 6838), (sym_call, STATE 6845), (sym_mlir_type, STATE 7017),
    (sym_list, STATE 7017), (sym_set, STATE 7017), (sym_tuple, STATE 7017),
    (sym_dictionary, STATE 7017), (sym_struct_literal, STATE 7017),
    (sym_list_comprehension, STATE 7017), (sym_dictionary_comprehension, STATE 7017),
    (sym_set_comprehension, STATE 7017), (sym_generator_expression, STATE 7017),
    (sym_parenthesized_expression, STATE 7017), (sym_conditional_expression, STATE 7969),
    (sym_concatenated_string, STATE 7017), (sym_string, STATE 6751), (sym_await, STATE 7017),
    (aux_sym_module_repeat1, STATE 925), (aux_sym_decorated_definition_repeat1, STATE 3670),
    (sym_identifier, ACTIONS 9), (anon_sym_import, ACTIONS 11), (anon_sym_from, ACTIONS 13),
    (anon_sym_LPAREN, ACTIONS 15), (anon_sym_STAR, ACTIONS 17), (anon_sym_print, ACTIONS 19),
    (anon_sym_comptime, ACTIONS 99), (anon_sym_assert, ACTIONS 23),
    (anon_sym___comptime_assert, ACTIONS 25), (anon_sym_return, ACTIONS 27),
    (anon_sym_del, ACTIONS 29), (anon_sym_raise, ACTIONS 31), (anon_sym_pass, ACTIONS 33),
    (anon_sym_break, ACTIONS 35), (anon_sym_continue, ACTIONS 37),
    (anon_sym___extension, ACTIONS 101), (anon_sym___mlir_region, ACTIONS 103),
    (anon_sym_if, ACTIONS 105), (anon_sym_match, ACTIONS 107), (anon_sym_async, ACTIONS 109),
    (anon_sym_for, ACTIONS 111), (anon_sym_while, ACTIONS 113), (anon_sym_try, ACTIONS 115),
    (anon_sym_with, ACTIONS 117), (anon_sym_def, ACTIONS 119), (anon_sym_fn, ACTIONS 119),
    (anon_sym_LBRACK, ACTIONS 59), (anon_sym_LBRACE, ACTIONS 61), (anon_sym_global, ACTIONS 63),
    (anon_sym_nonlocal, ACTIONS 65), (anon_sym_exec, ACTIONS 67), (anon_sym_type, ACTIONS 69),
    (anon_sym_class, ACTIONS 121), (anon_sym_struct, ACTIONS 121), (anon_sym_mut, ACTIONS 73),
    (anon_sym_out, ACTIONS 73), (anon_sym_trait, ACTIONS 123), (anon_sym_AT, ACTIONS 77),
    (anon_sym_DASH, ACTIONS 79), (anon_sym_PLUS, ACTIONS 79), (anon_sym_ref, ACTIONS 81),
    (anon_sym_var, ACTIONS 81), (anon_sym_not, ACTIONS 83), (anon_sym_TILDE, ACTIONS 79),
    (anon_sym_lambda, ACTIONS 85), (anon_sym_yield, ACTIONS 87), (sym_ellipsis, ACTIONS 89),
    (anon_sym___mlir_type, ACTIONS 91), (sym_integer, ACTIONS 93), (sym_float, ACTIONS 89),
    (anon_sym_await, ACTIONS 95), (sym_true, ACTIONS 93), (sym_false, ACTIONS 93),
    (sym_none, ACTIONS 93), (sym_comment, ACTIONS 3), (sym_line_continuation, ACTIONS 3),
    (sym__dedent, ACTIONS 129), (sym_string_start, ACTIONS 97)]"

definition parse_table_57 :: "(nat \<times> nat) list" where "parse_table_57 = [
    (sym__statement, STATE 925), (sym__simple_statements, STATE 925),
    (sym_import_statement, STATE 11814), (sym_future_import_statement, STATE 11814),
    (sym_import_from_statement, STATE 11814), (sym_print_statement, STATE 11814),
    (sym_assert_statement, STATE 11814), (sym_comptime_assert_statement, STATE 11814),
    (sym_expression_statement, STATE 11814), (sym_tuple_expression, STATE 12425),
    (sym_named_expression, STATE 7969), (sym__named_expression_lhs, STATE 12752),
    (sym_return_statement, STATE 11814), (sym_delete_statement, STATE 11814),
    (sym_raise_statement, STATE 11814), (sym_pass_statement, STATE 11814),
    (sym_break_statement, STATE 11814), (sym_continue_statement, STATE 11814),
    (sym_extension_definition, STATE 925), (sym_mlir_region, STATE 925),
    (sym_comptime_statement, STATE 925), (sym_if_statement, STATE 925),
    (sym_match_statement, STATE 925), (sym_for_statement, STATE 925),
    (sym_while_statement, STATE 925), (sym_try_statement, STATE 925),
    (sym_with_statement, STATE 925), (sym_function_definition, STATE 925),
    (sym_global_statement, STATE 11814), (sym_nonlocal_statement, STATE 11814),
    (sym_exec_statement, STATE 11814), (sym_type_alias_statement, STATE 11814),
    (sym_parameterized_alias_statement, STATE 11814), (sym_class_definition, STATE 925),
    (sym_trait_definition, STATE 925), (sym_decorated_definition, STATE 925),
    (sym_decorator, STATE 3670), (sym_block, STATE 5506), (sym_pattern, STATE 8086),
    (sym_tuple_pattern, STATE 8101), (sym_list_pattern, STATE 8101),
    (sym_list_splat_pattern, STATE 6819), (sym_as_pattern, STATE 7969),
    (sym_expression, STATE 9883), (sym_primary_expression, STATE 7326),
    (sym_comptime_expression, STATE 7017), (sym_transfer_expression, STATE 7017),
    (sym_not_operator, STATE 7969), (sym_boolean_operator, STATE 7969),
    (sym_binary_operator, STATE 7017), (sym_unary_operator, STATE 7017),
    (sym_comparison_operator, STATE 7969), (sym_lambda, STATE 7969),
    (sym_assignment, STATE 12425), (sym_augmented_assignment, STATE 12425),
    (sym_pattern_list, STATE 8578), (sym_yield, STATE 12425), (sym_attribute, STATE 6836),
    (sym_subscript, STATE 6838), (sym_call, STATE 6845), (sym_mlir_type, STATE 7017),
    (sym_list, STATE 7017), (sym_set, STATE 7017), (sym_tuple, STATE 7017),
    (sym_dictionary, STATE 7017), (sym_struct_literal, STATE 7017),
    (sym_list_comprehension, STATE 7017), (sym_dictionary_comprehension, STATE 7017),
    (sym_set_comprehension, STATE 7017), (sym_generator_expression, STATE 7017),
    (sym_parenthesized_expression, STATE 7017), (sym_conditional_expression, STATE 7969),
    (sym_concatenated_string, STATE 7017), (sym_string, STATE 6751), (sym_await, STATE 7017),
    (aux_sym_module_repeat1, STATE 925), (aux_sym_decorated_definition_repeat1, STATE 3670),
    (sym_identifier, ACTIONS 9), (anon_sym_import, ACTIONS 11), (anon_sym_from, ACTIONS 13),
    (anon_sym_LPAREN, ACTIONS 15), (anon_sym_STAR, ACTIONS 17), (anon_sym_print, ACTIONS 19),
    (anon_sym_comptime, ACTIONS 99), (anon_sym_assert, ACTIONS 23),
    (anon_sym___comptime_assert, ACTIONS 25), (anon_sym_return, ACTIONS 27),
    (anon_sym_del, ACTIONS 29), (anon_sym_raise, ACTIONS 31), (anon_sym_pass, ACTIONS 33),
    (anon_sym_break, ACTIONS 35), (anon_sym_continue, ACTIONS 37),
    (anon_sym___extension, ACTIONS 101), (anon_sym___mlir_region, ACTIONS 103),
    (anon_sym_if, ACTIONS 105), (anon_sym_match, ACTIONS 107), (anon_sym_async, ACTIONS 109),
    (anon_sym_for, ACTIONS 111), (anon_sym_while, ACTIONS 113), (anon_sym_try, ACTIONS 115),
    (anon_sym_with, ACTIONS 117), (anon_sym_def, ACTIONS 119), (anon_sym_fn, ACTIONS 119),
    (anon_sym_LBRACK, ACTIONS 59), (anon_sym_LBRACE, ACTIONS 61), (anon_sym_global, ACTIONS 63),
    (anon_sym_nonlocal, ACTIONS 65), (anon_sym_exec, ACTIONS 67), (anon_sym_type, ACTIONS 69),
    (anon_sym_class, ACTIONS 121), (anon_sym_struct, ACTIONS 121), (anon_sym_mut, ACTIONS 73),
    (anon_sym_out, ACTIONS 73), (anon_sym_trait, ACTIONS 123), (anon_sym_AT, ACTIONS 77),
    (anon_sym_DASH, ACTIONS 79), (anon_sym_PLUS, ACTIONS 79), (anon_sym_ref, ACTIONS 81),
    (anon_sym_var, ACTIONS 81), (anon_sym_not, ACTIONS 83), (anon_sym_TILDE, ACTIONS 79),
    (anon_sym_lambda, ACTIONS 85), (anon_sym_yield, ACTIONS 87), (sym_ellipsis, ACTIONS 89),
    (anon_sym___mlir_type, ACTIONS 91), (sym_integer, ACTIONS 93), (sym_float, ACTIONS 89),
    (anon_sym_await, ACTIONS 95), (sym_true, ACTIONS 93), (sym_false, ACTIONS 93),
    (sym_none, ACTIONS 93), (sym_comment, ACTIONS 3), (sym_line_continuation, ACTIONS 3),
    (sym__dedent, ACTIONS 129), (sym_string_start, ACTIONS 97)]"

definition parse_table_58 :: "(nat \<times> nat) list" where "parse_table_58 = [
    (sym__statement, STATE 925), (sym__simple_statements, STATE 925),
    (sym_import_statement, STATE 11814), (sym_future_import_statement, STATE 11814),
    (sym_import_from_statement, STATE 11814), (sym_print_statement, STATE 11814),
    (sym_assert_statement, STATE 11814), (sym_comptime_assert_statement, STATE 11814),
    (sym_expression_statement, STATE 11814), (sym_tuple_expression, STATE 12425),
    (sym_named_expression, STATE 7969), (sym__named_expression_lhs, STATE 12752),
    (sym_return_statement, STATE 11814), (sym_delete_statement, STATE 11814),
    (sym_raise_statement, STATE 11814), (sym_pass_statement, STATE 11814),
    (sym_break_statement, STATE 11814), (sym_continue_statement, STATE 11814),
    (sym_extension_definition, STATE 925), (sym_mlir_region, STATE 925),
    (sym_comptime_statement, STATE 925), (sym_if_statement, STATE 925),
    (sym_match_statement, STATE 925), (sym_for_statement, STATE 925),
    (sym_while_statement, STATE 925), (sym_try_statement, STATE 925),
    (sym_with_statement, STATE 925), (sym_function_definition, STATE 925),
    (sym_global_statement, STATE 11814), (sym_nonlocal_statement, STATE 11814),
    (sym_exec_statement, STATE 11814), (sym_type_alias_statement, STATE 11814),
    (sym_parameterized_alias_statement, STATE 11814), (sym_class_definition, STATE 925),
    (sym_trait_definition, STATE 925), (sym_decorated_definition, STATE 925),
    (sym_decorator, STATE 3670), (sym_block, STATE 5519), (sym_pattern, STATE 8086),
    (sym_tuple_pattern, STATE 8101), (sym_list_pattern, STATE 8101),
    (sym_list_splat_pattern, STATE 6819), (sym_as_pattern, STATE 7969),
    (sym_expression, STATE 9883), (sym_primary_expression, STATE 7326),
    (sym_comptime_expression, STATE 7017), (sym_transfer_expression, STATE 7017),
    (sym_not_operator, STATE 7969), (sym_boolean_operator, STATE 7969),
    (sym_binary_operator, STATE 7017), (sym_unary_operator, STATE 7017),
    (sym_comparison_operator, STATE 7969), (sym_lambda, STATE 7969),
    (sym_assignment, STATE 12425), (sym_augmented_assignment, STATE 12425),
    (sym_pattern_list, STATE 8578), (sym_yield, STATE 12425), (sym_attribute, STATE 6836),
    (sym_subscript, STATE 6838), (sym_call, STATE 6845), (sym_mlir_type, STATE 7017),
    (sym_list, STATE 7017), (sym_set, STATE 7017), (sym_tuple, STATE 7017),
    (sym_dictionary, STATE 7017), (sym_struct_literal, STATE 7017),
    (sym_list_comprehension, STATE 7017), (sym_dictionary_comprehension, STATE 7017),
    (sym_set_comprehension, STATE 7017), (sym_generator_expression, STATE 7017),
    (sym_parenthesized_expression, STATE 7017), (sym_conditional_expression, STATE 7969),
    (sym_concatenated_string, STATE 7017), (sym_string, STATE 6751), (sym_await, STATE 7017),
    (aux_sym_module_repeat1, STATE 925), (aux_sym_decorated_definition_repeat1, STATE 3670),
    (sym_identifier, ACTIONS 9), (anon_sym_import, ACTIONS 11), (anon_sym_from, ACTIONS 13),
    (anon_sym_LPAREN, ACTIONS 15), (anon_sym_STAR, ACTIONS 17), (anon_sym_print, ACTIONS 19),
    (anon_sym_comptime, ACTIONS 99), (anon_sym_assert, ACTIONS 23),
    (anon_sym___comptime_assert, ACTIONS 25), (anon_sym_return, ACTIONS 27),
    (anon_sym_del, ACTIONS 29), (anon_sym_raise, ACTIONS 31), (anon_sym_pass, ACTIONS 33),
    (anon_sym_break, ACTIONS 35), (anon_sym_continue, ACTIONS 37),
    (anon_sym___extension, ACTIONS 101), (anon_sym___mlir_region, ACTIONS 103),
    (anon_sym_if, ACTIONS 105), (anon_sym_match, ACTIONS 107), (anon_sym_async, ACTIONS 109),
    (anon_sym_for, ACTIONS 111), (anon_sym_while, ACTIONS 113), (anon_sym_try, ACTIONS 115),
    (anon_sym_with, ACTIONS 117), (anon_sym_def, ACTIONS 119), (anon_sym_fn, ACTIONS 119),
    (anon_sym_LBRACK, ACTIONS 59), (anon_sym_LBRACE, ACTIONS 61), (anon_sym_global, ACTIONS 63),
    (anon_sym_nonlocal, ACTIONS 65), (anon_sym_exec, ACTIONS 67), (anon_sym_type, ACTIONS 69),
    (anon_sym_class, ACTIONS 121), (anon_sym_struct, ACTIONS 121), (anon_sym_mut, ACTIONS 73),
    (anon_sym_out, ACTIONS 73), (anon_sym_trait, ACTIONS 123), (anon_sym_AT, ACTIONS 77),
    (anon_sym_DASH, ACTIONS 79), (anon_sym_PLUS, ACTIONS 79), (anon_sym_ref, ACTIONS 81),
    (anon_sym_var, ACTIONS 81), (anon_sym_not, ACTIONS 83), (anon_sym_TILDE, ACTIONS 79),
    (anon_sym_lambda, ACTIONS 85), (anon_sym_yield, ACTIONS 87), (sym_ellipsis, ACTIONS 89),
    (anon_sym___mlir_type, ACTIONS 91), (sym_integer, ACTIONS 93), (sym_float, ACTIONS 89),
    (anon_sym_await, ACTIONS 95), (sym_true, ACTIONS 93), (sym_false, ACTIONS 93),
    (sym_none, ACTIONS 93), (sym_comment, ACTIONS 3), (sym_line_continuation, ACTIONS 3),
    (sym__dedent, ACTIONS 129), (sym_string_start, ACTIONS 97)]"

definition parse_table_59 :: "(nat \<times> nat) list" where "parse_table_59 = [
    (sym__statement, STATE 925), (sym__simple_statements, STATE 925),
    (sym_import_statement, STATE 11814), (sym_future_import_statement, STATE 11814),
    (sym_import_from_statement, STATE 11814), (sym_print_statement, STATE 11814),
    (sym_assert_statement, STATE 11814), (sym_comptime_assert_statement, STATE 11814),
    (sym_expression_statement, STATE 11814), (sym_tuple_expression, STATE 12425),
    (sym_named_expression, STATE 7969), (sym__named_expression_lhs, STATE 12752),
    (sym_return_statement, STATE 11814), (sym_delete_statement, STATE 11814),
    (sym_raise_statement, STATE 11814), (sym_pass_statement, STATE 11814),
    (sym_break_statement, STATE 11814), (sym_continue_statement, STATE 11814),
    (sym_extension_definition, STATE 925), (sym_mlir_region, STATE 925),
    (sym_comptime_statement, STATE 925), (sym_if_statement, STATE 925),
    (sym_match_statement, STATE 925), (sym_for_statement, STATE 925),
    (sym_while_statement, STATE 925), (sym_try_statement, STATE 925),
    (sym_with_statement, STATE 925), (sym_function_definition, STATE 925),
    (sym_global_statement, STATE 11814), (sym_nonlocal_statement, STATE 11814),
    (sym_exec_statement, STATE 11814), (sym_type_alias_statement, STATE 11814),
    (sym_parameterized_alias_statement, STATE 11814), (sym_class_definition, STATE 925),
    (sym_trait_definition, STATE 925), (sym_decorated_definition, STATE 925),
    (sym_decorator, STATE 3670), (sym_block, STATE 5529), (sym_pattern, STATE 8086),
    (sym_tuple_pattern, STATE 8101), (sym_list_pattern, STATE 8101),
    (sym_list_splat_pattern, STATE 6819), (sym_as_pattern, STATE 7969),
    (sym_expression, STATE 9883), (sym_primary_expression, STATE 7326),
    (sym_comptime_expression, STATE 7017), (sym_transfer_expression, STATE 7017),
    (sym_not_operator, STATE 7969), (sym_boolean_operator, STATE 7969),
    (sym_binary_operator, STATE 7017), (sym_unary_operator, STATE 7017),
    (sym_comparison_operator, STATE 7969), (sym_lambda, STATE 7969),
    (sym_assignment, STATE 12425), (sym_augmented_assignment, STATE 12425),
    (sym_pattern_list, STATE 8578), (sym_yield, STATE 12425), (sym_attribute, STATE 6836),
    (sym_subscript, STATE 6838), (sym_call, STATE 6845), (sym_mlir_type, STATE 7017),
    (sym_list, STATE 7017), (sym_set, STATE 7017), (sym_tuple, STATE 7017),
    (sym_dictionary, STATE 7017), (sym_struct_literal, STATE 7017),
    (sym_list_comprehension, STATE 7017), (sym_dictionary_comprehension, STATE 7017),
    (sym_set_comprehension, STATE 7017), (sym_generator_expression, STATE 7017),
    (sym_parenthesized_expression, STATE 7017), (sym_conditional_expression, STATE 7969),
    (sym_concatenated_string, STATE 7017), (sym_string, STATE 6751), (sym_await, STATE 7017),
    (aux_sym_module_repeat1, STATE 925), (aux_sym_decorated_definition_repeat1, STATE 3670),
    (sym_identifier, ACTIONS 9), (anon_sym_import, ACTIONS 11), (anon_sym_from, ACTIONS 13),
    (anon_sym_LPAREN, ACTIONS 15), (anon_sym_STAR, ACTIONS 17), (anon_sym_print, ACTIONS 19),
    (anon_sym_comptime, ACTIONS 99), (anon_sym_assert, ACTIONS 23),
    (anon_sym___comptime_assert, ACTIONS 25), (anon_sym_return, ACTIONS 27),
    (anon_sym_del, ACTIONS 29), (anon_sym_raise, ACTIONS 31), (anon_sym_pass, ACTIONS 33),
    (anon_sym_break, ACTIONS 35), (anon_sym_continue, ACTIONS 37),
    (anon_sym___extension, ACTIONS 101), (anon_sym___mlir_region, ACTIONS 103),
    (anon_sym_if, ACTIONS 105), (anon_sym_match, ACTIONS 107), (anon_sym_async, ACTIONS 109),
    (anon_sym_for, ACTIONS 111), (anon_sym_while, ACTIONS 113), (anon_sym_try, ACTIONS 115),
    (anon_sym_with, ACTIONS 117), (anon_sym_def, ACTIONS 119), (anon_sym_fn, ACTIONS 119),
    (anon_sym_LBRACK, ACTIONS 59), (anon_sym_LBRACE, ACTIONS 61), (anon_sym_global, ACTIONS 63),
    (anon_sym_nonlocal, ACTIONS 65), (anon_sym_exec, ACTIONS 67), (anon_sym_type, ACTIONS 69),
    (anon_sym_class, ACTIONS 121), (anon_sym_struct, ACTIONS 121), (anon_sym_mut, ACTIONS 73),
    (anon_sym_out, ACTIONS 73), (anon_sym_trait, ACTIONS 123), (anon_sym_AT, ACTIONS 77),
    (anon_sym_DASH, ACTIONS 79), (anon_sym_PLUS, ACTIONS 79), (anon_sym_ref, ACTIONS 81),
    (anon_sym_var, ACTIONS 81), (anon_sym_not, ACTIONS 83), (anon_sym_TILDE, ACTIONS 79),
    (anon_sym_lambda, ACTIONS 85), (anon_sym_yield, ACTIONS 87), (sym_ellipsis, ACTIONS 89),
    (anon_sym___mlir_type, ACTIONS 91), (sym_integer, ACTIONS 93), (sym_float, ACTIONS 89),
    (anon_sym_await, ACTIONS 95), (sym_true, ACTIONS 93), (sym_false, ACTIONS 93),
    (sym_none, ACTIONS 93), (sym_comment, ACTIONS 3), (sym_line_continuation, ACTIONS 3),
    (sym__dedent, ACTIONS 129), (sym_string_start, ACTIONS 97)]"

definition parse_table_60 :: "(nat \<times> nat) list" where "parse_table_60 = [
    (sym__statement, STATE 925), (sym__simple_statements, STATE 925),
    (sym_import_statement, STATE 11814), (sym_future_import_statement, STATE 11814),
    (sym_import_from_statement, STATE 11814), (sym_print_statement, STATE 11814),
    (sym_assert_statement, STATE 11814), (sym_comptime_assert_statement, STATE 11814),
    (sym_expression_statement, STATE 11814), (sym_tuple_expression, STATE 12425),
    (sym_named_expression, STATE 7969), (sym__named_expression_lhs, STATE 12752),
    (sym_return_statement, STATE 11814), (sym_delete_statement, STATE 11814),
    (sym_raise_statement, STATE 11814), (sym_pass_statement, STATE 11814),
    (sym_break_statement, STATE 11814), (sym_continue_statement, STATE 11814),
    (sym_extension_definition, STATE 925), (sym_mlir_region, STATE 925),
    (sym_comptime_statement, STATE 925), (sym_if_statement, STATE 925),
    (sym_match_statement, STATE 925), (sym_for_statement, STATE 925),
    (sym_while_statement, STATE 925), (sym_try_statement, STATE 925),
    (sym_with_statement, STATE 925), (sym_function_definition, STATE 925),
    (sym_global_statement, STATE 11814), (sym_nonlocal_statement, STATE 11814),
    (sym_exec_statement, STATE 11814), (sym_type_alias_statement, STATE 11814),
    (sym_parameterized_alias_statement, STATE 11814), (sym_class_definition, STATE 925),
    (sym_trait_definition, STATE 925), (sym_decorated_definition, STATE 925),
    (sym_decorator, STATE 3670), (sym_block, STATE 5535), (sym_pattern, STATE 8086),
    (sym_tuple_pattern, STATE 8101), (sym_list_pattern, STATE 8101),
    (sym_list_splat_pattern, STATE 6819), (sym_as_pattern, STATE 7969),
    (sym_expression, STATE 9883), (sym_primary_expression, STATE 7326),
    (sym_comptime_expression, STATE 7017), (sym_transfer_expression, STATE 7017),
    (sym_not_operator, STATE 7969), (sym_boolean_operator, STATE 7969),
    (sym_binary_operator, STATE 7017), (sym_unary_operator, STATE 7017),
    (sym_comparison_operator, STATE 7969), (sym_lambda, STATE 7969),
    (sym_assignment, STATE 12425), (sym_augmented_assignment, STATE 12425),
    (sym_pattern_list, STATE 8578), (sym_yield, STATE 12425), (sym_attribute, STATE 6836),
    (sym_subscript, STATE 6838), (sym_call, STATE 6845), (sym_mlir_type, STATE 7017),
    (sym_list, STATE 7017), (sym_set, STATE 7017), (sym_tuple, STATE 7017),
    (sym_dictionary, STATE 7017), (sym_struct_literal, STATE 7017),
    (sym_list_comprehension, STATE 7017), (sym_dictionary_comprehension, STATE 7017),
    (sym_set_comprehension, STATE 7017), (sym_generator_expression, STATE 7017),
    (sym_parenthesized_expression, STATE 7017), (sym_conditional_expression, STATE 7969),
    (sym_concatenated_string, STATE 7017), (sym_string, STATE 6751), (sym_await, STATE 7017),
    (aux_sym_module_repeat1, STATE 925), (aux_sym_decorated_definition_repeat1, STATE 3670),
    (sym_identifier, ACTIONS 9), (anon_sym_import, ACTIONS 11), (anon_sym_from, ACTIONS 13),
    (anon_sym_LPAREN, ACTIONS 15), (anon_sym_STAR, ACTIONS 17), (anon_sym_print, ACTIONS 19),
    (anon_sym_comptime, ACTIONS 99), (anon_sym_assert, ACTIONS 23),
    (anon_sym___comptime_assert, ACTIONS 25), (anon_sym_return, ACTIONS 27),
    (anon_sym_del, ACTIONS 29), (anon_sym_raise, ACTIONS 31), (anon_sym_pass, ACTIONS 33),
    (anon_sym_break, ACTIONS 35), (anon_sym_continue, ACTIONS 37),
    (anon_sym___extension, ACTIONS 101), (anon_sym___mlir_region, ACTIONS 103),
    (anon_sym_if, ACTIONS 105), (anon_sym_match, ACTIONS 107), (anon_sym_async, ACTIONS 109),
    (anon_sym_for, ACTIONS 111), (anon_sym_while, ACTIONS 113), (anon_sym_try, ACTIONS 115),
    (anon_sym_with, ACTIONS 117), (anon_sym_def, ACTIONS 119), (anon_sym_fn, ACTIONS 119),
    (anon_sym_LBRACK, ACTIONS 59), (anon_sym_LBRACE, ACTIONS 61), (anon_sym_global, ACTIONS 63),
    (anon_sym_nonlocal, ACTIONS 65), (anon_sym_exec, ACTIONS 67), (anon_sym_type, ACTIONS 69),
    (anon_sym_class, ACTIONS 121), (anon_sym_struct, ACTIONS 121), (anon_sym_mut, ACTIONS 73),
    (anon_sym_out, ACTIONS 73), (anon_sym_trait, ACTIONS 123), (anon_sym_AT, ACTIONS 77),
    (anon_sym_DASH, ACTIONS 79), (anon_sym_PLUS, ACTIONS 79), (anon_sym_ref, ACTIONS 81),
    (anon_sym_var, ACTIONS 81), (anon_sym_not, ACTIONS 83), (anon_sym_TILDE, ACTIONS 79),
    (anon_sym_lambda, ACTIONS 85), (anon_sym_yield, ACTIONS 87), (sym_ellipsis, ACTIONS 89),
    (anon_sym___mlir_type, ACTIONS 91), (sym_integer, ACTIONS 93), (sym_float, ACTIONS 89),
    (anon_sym_await, ACTIONS 95), (sym_true, ACTIONS 93), (sym_false, ACTIONS 93),
    (sym_none, ACTIONS 93), (sym_comment, ACTIONS 3), (sym_line_continuation, ACTIONS 3),
    (sym__dedent, ACTIONS 129), (sym_string_start, ACTIONS 97)]"

definition parse_table_61 :: "(nat \<times> nat) list" where "parse_table_61 = [
    (sym__statement, STATE 928), (sym__simple_statements, STATE 928),
    (sym_import_statement, STATE 11814), (sym_future_import_statement, STATE 11814),
    (sym_import_from_statement, STATE 11814), (sym_print_statement, STATE 11814),
    (sym_assert_statement, STATE 11814), (sym_comptime_assert_statement, STATE 11814),
    (sym_expression_statement, STATE 11814), (sym_tuple_expression, STATE 12425),
    (sym_named_expression, STATE 7969), (sym__named_expression_lhs, STATE 12752),
    (sym_return_statement, STATE 11814), (sym_delete_statement, STATE 11814),
    (sym_raise_statement, STATE 11814), (sym_pass_statement, STATE 11814),
    (sym_break_statement, STATE 11814), (sym_continue_statement, STATE 11814),
    (sym_extension_definition, STATE 928), (sym_mlir_region, STATE 928),
    (sym_comptime_statement, STATE 928), (sym_if_statement, STATE 928),
    (sym_match_statement, STATE 928), (sym_for_statement, STATE 928),
    (sym_while_statement, STATE 928), (sym_try_statement, STATE 928),
    (sym_with_statement, STATE 928), (sym_function_definition, STATE 928),
    (sym_global_statement, STATE 11814), (sym_nonlocal_statement, STATE 11814),
    (sym_exec_statement, STATE 11814), (sym_type_alias_statement, STATE 11814),
    (sym_parameterized_alias_statement, STATE 11814), (sym_class_definition, STATE 928),
    (sym_trait_definition, STATE 928), (sym_decorated_definition, STATE 928),
    (sym_decorator, STATE 3670), (sym_block, STATE 12345), (sym_pattern, STATE 8086),
    (sym_tuple_pattern, STATE 8101), (sym_list_pattern, STATE 8101),
    (sym_list_splat_pattern, STATE 6819), (sym_as_pattern, STATE 7969),
    (sym_expression, STATE 9883), (sym_primary_expression, STATE 7326),
    (sym_comptime_expression, STATE 7017), (sym_transfer_expression, STATE 7017),
    (sym_not_operator, STATE 7969), (sym_boolean_operator, STATE 7969),
    (sym_binary_operator, STATE 7017), (sym_unary_operator, STATE 7017),
    (sym_comparison_operator, STATE 7969), (sym_lambda, STATE 7969),
    (sym_assignment, STATE 12425), (sym_augmented_assignment, STATE 12425),
    (sym_pattern_list, STATE 8578), (sym_yield, STATE 12425), (sym_attribute, STATE 6836),
    (sym_subscript, STATE 6838), (sym_call, STATE 6845), (sym_mlir_type, STATE 7017),
    (sym_list, STATE 7017), (sym_set, STATE 7017), (sym_tuple, STATE 7017),
    (sym_dictionary, STATE 7017), (sym_struct_literal, STATE 7017),
    (sym_list_comprehension, STATE 7017), (sym_dictionary_comprehension, STATE 7017),
    (sym_set_comprehension, STATE 7017), (sym_generator_expression, STATE 7017),
    (sym_parenthesized_expression, STATE 7017), (sym_conditional_expression, STATE 7969),
    (sym_concatenated_string, STATE 7017), (sym_string, STATE 6751), (sym_await, STATE 7017),
    (aux_sym_module_repeat1, STATE 928), (aux_sym_decorated_definition_repeat1, STATE 3670),
    (sym_identifier, ACTIONS 9), (anon_sym_import, ACTIONS 11), (anon_sym_from, ACTIONS 13),
    (anon_sym_LPAREN, ACTIONS 15), (anon_sym_STAR, ACTIONS 17), (anon_sym_print, ACTIONS 19),
    (anon_sym_comptime, ACTIONS 99), (anon_sym_assert, ACTIONS 23),
    (anon_sym___comptime_assert, ACTIONS 25), (anon_sym_return, ACTIONS 27),
    (anon_sym_del, ACTIONS 29), (anon_sym_raise, ACTIONS 31), (anon_sym_pass, ACTIONS 33),
    (anon_sym_break, ACTIONS 35), (anon_sym_continue, ACTIONS 37),
    (anon_sym___extension, ACTIONS 101), (anon_sym___mlir_region, ACTIONS 103),
    (anon_sym_if, ACTIONS 105), (anon_sym_match, ACTIONS 107), (anon_sym_async, ACTIONS 109),
    (anon_sym_for, ACTIONS 111), (anon_sym_while, ACTIONS 113), (anon_sym_try, ACTIONS 115),
    (anon_sym_with, ACTIONS 117), (anon_sym_def, ACTIONS 119), (anon_sym_fn, ACTIONS 119),
    (anon_sym_LBRACK, ACTIONS 59), (anon_sym_LBRACE, ACTIONS 61), (anon_sym_global, ACTIONS 63),
    (anon_sym_nonlocal, ACTIONS 65), (anon_sym_exec, ACTIONS 67), (anon_sym_type, ACTIONS 69),
    (anon_sym_class, ACTIONS 121), (anon_sym_struct, ACTIONS 121), (anon_sym_mut, ACTIONS 73),
    (anon_sym_out, ACTIONS 73), (anon_sym_trait, ACTIONS 123), (anon_sym_AT, ACTIONS 77),
    (anon_sym_DASH, ACTIONS 79), (anon_sym_PLUS, ACTIONS 79), (anon_sym_ref, ACTIONS 81),
    (anon_sym_var, ACTIONS 81), (anon_sym_not, ACTIONS 83), (anon_sym_TILDE, ACTIONS 79),
    (anon_sym_lambda, ACTIONS 85), (anon_sym_yield, ACTIONS 87), (sym_ellipsis, ACTIONS 89),
    (anon_sym___mlir_type, ACTIONS 91), (sym_integer, ACTIONS 93), (sym_float, ACTIONS 89),
    (anon_sym_await, ACTIONS 95), (sym_true, ACTIONS 93), (sym_false, ACTIONS 93),
    (sym_none, ACTIONS 93), (sym_comment, ACTIONS 3), (sym_line_continuation, ACTIONS 3),
    (sym__dedent, ACTIONS 133), (sym_string_start, ACTIONS 97)]"

definition parse_table_62 :: "(nat \<times> nat) list" where "parse_table_62 = [
    (sym__statement, STATE 928), (sym__simple_statements, STATE 928),
    (sym_import_statement, STATE 11814), (sym_future_import_statement, STATE 11814),
    (sym_import_from_statement, STATE 11814), (sym_print_statement, STATE 11814),
    (sym_assert_statement, STATE 11814), (sym_comptime_assert_statement, STATE 11814),
    (sym_expression_statement, STATE 11814), (sym_tuple_expression, STATE 12425),
    (sym_named_expression, STATE 7969), (sym__named_expression_lhs, STATE 12752),
    (sym_return_statement, STATE 11814), (sym_delete_statement, STATE 11814),
    (sym_raise_statement, STATE 11814), (sym_pass_statement, STATE 11814),
    (sym_break_statement, STATE 11814), (sym_continue_statement, STATE 11814),
    (sym_extension_definition, STATE 928), (sym_mlir_region, STATE 928),
    (sym_comptime_statement, STATE 928), (sym_if_statement, STATE 928),
    (sym_match_statement, STATE 928), (sym_for_statement, STATE 928),
    (sym_while_statement, STATE 928), (sym_try_statement, STATE 928),
    (sym_with_statement, STATE 928), (sym_function_definition, STATE 928),
    (sym_global_statement, STATE 11814), (sym_nonlocal_statement, STATE 11814),
    (sym_exec_statement, STATE 11814), (sym_type_alias_statement, STATE 11814),
    (sym_parameterized_alias_statement, STATE 11814), (sym_class_definition, STATE 928),
    (sym_trait_definition, STATE 928), (sym_decorated_definition, STATE 928),
    (sym_decorator, STATE 3670), (sym_block, STATE 12326), (sym_pattern, STATE 8086),
    (sym_tuple_pattern, STATE 8101), (sym_list_pattern, STATE 8101),
    (sym_list_splat_pattern, STATE 6819), (sym_as_pattern, STATE 7969),
    (sym_expression, STATE 9883), (sym_primary_expression, STATE 7326),
    (sym_comptime_expression, STATE 7017), (sym_transfer_expression, STATE 7017),
    (sym_not_operator, STATE 7969), (sym_boolean_operator, STATE 7969),
    (sym_binary_operator, STATE 7017), (sym_unary_operator, STATE 7017),
    (sym_comparison_operator, STATE 7969), (sym_lambda, STATE 7969),
    (sym_assignment, STATE 12425), (sym_augmented_assignment, STATE 12425),
    (sym_pattern_list, STATE 8578), (sym_yield, STATE 12425), (sym_attribute, STATE 6836),
    (sym_subscript, STATE 6838), (sym_call, STATE 6845), (sym_mlir_type, STATE 7017),
    (sym_list, STATE 7017), (sym_set, STATE 7017), (sym_tuple, STATE 7017),
    (sym_dictionary, STATE 7017), (sym_struct_literal, STATE 7017),
    (sym_list_comprehension, STATE 7017), (sym_dictionary_comprehension, STATE 7017),
    (sym_set_comprehension, STATE 7017), (sym_generator_expression, STATE 7017),
    (sym_parenthesized_expression, STATE 7017), (sym_conditional_expression, STATE 7969),
    (sym_concatenated_string, STATE 7017), (sym_string, STATE 6751), (sym_await, STATE 7017),
    (aux_sym_module_repeat1, STATE 928), (aux_sym_decorated_definition_repeat1, STATE 3670),
    (sym_identifier, ACTIONS 9), (anon_sym_import, ACTIONS 11), (anon_sym_from, ACTIONS 13),
    (anon_sym_LPAREN, ACTIONS 15), (anon_sym_STAR, ACTIONS 17), (anon_sym_print, ACTIONS 19),
    (anon_sym_comptime, ACTIONS 99), (anon_sym_assert, ACTIONS 23),
    (anon_sym___comptime_assert, ACTIONS 25), (anon_sym_return, ACTIONS 27),
    (anon_sym_del, ACTIONS 29), (anon_sym_raise, ACTIONS 31), (anon_sym_pass, ACTIONS 33),
    (anon_sym_break, ACTIONS 35), (anon_sym_continue, ACTIONS 37),
    (anon_sym___extension, ACTIONS 101), (anon_sym___mlir_region, ACTIONS 103),
    (anon_sym_if, ACTIONS 105), (anon_sym_match, ACTIONS 107), (anon_sym_async, ACTIONS 109),
    (anon_sym_for, ACTIONS 111), (anon_sym_while, ACTIONS 113), (anon_sym_try, ACTIONS 115),
    (anon_sym_with, ACTIONS 117), (anon_sym_def, ACTIONS 119), (anon_sym_fn, ACTIONS 119),
    (anon_sym_LBRACK, ACTIONS 59), (anon_sym_LBRACE, ACTIONS 61), (anon_sym_global, ACTIONS 63),
    (anon_sym_nonlocal, ACTIONS 65), (anon_sym_exec, ACTIONS 67), (anon_sym_type, ACTIONS 69),
    (anon_sym_class, ACTIONS 121), (anon_sym_struct, ACTIONS 121), (anon_sym_mut, ACTIONS 73),
    (anon_sym_out, ACTIONS 73), (anon_sym_trait, ACTIONS 123), (anon_sym_AT, ACTIONS 77),
    (anon_sym_DASH, ACTIONS 79), (anon_sym_PLUS, ACTIONS 79), (anon_sym_ref, ACTIONS 81),
    (anon_sym_var, ACTIONS 81), (anon_sym_not, ACTIONS 83), (anon_sym_TILDE, ACTIONS 79),
    (anon_sym_lambda, ACTIONS 85), (anon_sym_yield, ACTIONS 87), (sym_ellipsis, ACTIONS 89),
    (anon_sym___mlir_type, ACTIONS 91), (sym_integer, ACTIONS 93), (sym_float, ACTIONS 89),
    (anon_sym_await, ACTIONS 95), (sym_true, ACTIONS 93), (sym_false, ACTIONS 93),
    (sym_none, ACTIONS 93), (sym_comment, ACTIONS 3), (sym_line_continuation, ACTIONS 3),
    (sym__dedent, ACTIONS 133), (sym_string_start, ACTIONS 97)]"

definition parse_table_63 :: "(nat \<times> nat) list" where "parse_table_63 = [
    (sym__statement, STATE 925), (sym__simple_statements, STATE 925),
    (sym_import_statement, STATE 11814), (sym_future_import_statement, STATE 11814),
    (sym_import_from_statement, STATE 11814), (sym_print_statement, STATE 11814),
    (sym_assert_statement, STATE 11814), (sym_comptime_assert_statement, STATE 11814),
    (sym_expression_statement, STATE 11814), (sym_tuple_expression, STATE 12425),
    (sym_named_expression, STATE 7969), (sym__named_expression_lhs, STATE 12752),
    (sym_return_statement, STATE 11814), (sym_delete_statement, STATE 11814),
    (sym_raise_statement, STATE 11814), (sym_pass_statement, STATE 11814),
    (sym_break_statement, STATE 11814), (sym_continue_statement, STATE 11814),
    (sym_extension_definition, STATE 925), (sym_mlir_region, STATE 925),
    (sym_comptime_statement, STATE 925), (sym_if_statement, STATE 925),
    (sym_match_statement, STATE 925), (sym_for_statement, STATE 925),
    (sym_while_statement, STATE 925), (sym_try_statement, STATE 925),
    (sym_with_statement, STATE 925), (sym_function_definition, STATE 925),
    (sym_global_statement, STATE 11814), (sym_nonlocal_statement, STATE 11814),
    (sym_exec_statement, STATE 11814), (sym_type_alias_statement, STATE 11814),
    (sym_parameterized_alias_statement, STATE 11814), (sym_class_definition, STATE 925),
    (sym_trait_definition, STATE 925), (sym_decorated_definition, STATE 925),
    (sym_decorator, STATE 3670), (sym_block, STATE 5945), (sym_pattern, STATE 8086),
    (sym_tuple_pattern, STATE 8101), (sym_list_pattern, STATE 8101),
    (sym_list_splat_pattern, STATE 6819), (sym_as_pattern, STATE 7969),
    (sym_expression, STATE 9883), (sym_primary_expression, STATE 7326),
    (sym_comptime_expression, STATE 7017), (sym_transfer_expression, STATE 7017),
    (sym_not_operator, STATE 7969), (sym_boolean_operator, STATE 7969),
    (sym_binary_operator, STATE 7017), (sym_unary_operator, STATE 7017),
    (sym_comparison_operator, STATE 7969), (sym_lambda, STATE 7969),
    (sym_assignment, STATE 12425), (sym_augmented_assignment, STATE 12425),
    (sym_pattern_list, STATE 8578), (sym_yield, STATE 12425), (sym_attribute, STATE 6836),
    (sym_subscript, STATE 6838), (sym_call, STATE 6845), (sym_mlir_type, STATE 7017),
    (sym_list, STATE 7017), (sym_set, STATE 7017), (sym_tuple, STATE 7017),
    (sym_dictionary, STATE 7017), (sym_struct_literal, STATE 7017),
    (sym_list_comprehension, STATE 7017), (sym_dictionary_comprehension, STATE 7017),
    (sym_set_comprehension, STATE 7017), (sym_generator_expression, STATE 7017),
    (sym_parenthesized_expression, STATE 7017), (sym_conditional_expression, STATE 7969),
    (sym_concatenated_string, STATE 7017), (sym_string, STATE 6751), (sym_await, STATE 7017),
    (aux_sym_module_repeat1, STATE 925), (aux_sym_decorated_definition_repeat1, STATE 3670),
    (sym_identifier, ACTIONS 9), (anon_sym_import, ACTIONS 11), (anon_sym_from, ACTIONS 13),
    (anon_sym_LPAREN, ACTIONS 15), (anon_sym_STAR, ACTIONS 17), (anon_sym_print, ACTIONS 19),
    (anon_sym_comptime, ACTIONS 99), (anon_sym_assert, ACTIONS 23),
    (anon_sym___comptime_assert, ACTIONS 25), (anon_sym_return, ACTIONS 27),
    (anon_sym_del, ACTIONS 29), (anon_sym_raise, ACTIONS 31), (anon_sym_pass, ACTIONS 33),
    (anon_sym_break, ACTIONS 35), (anon_sym_continue, ACTIONS 37),
    (anon_sym___extension, ACTIONS 101), (anon_sym___mlir_region, ACTIONS 103),
    (anon_sym_if, ACTIONS 105), (anon_sym_match, ACTIONS 107), (anon_sym_async, ACTIONS 109),
    (anon_sym_for, ACTIONS 111), (anon_sym_while, ACTIONS 113), (anon_sym_try, ACTIONS 115),
    (anon_sym_with, ACTIONS 117), (anon_sym_def, ACTIONS 119), (anon_sym_fn, ACTIONS 119),
    (anon_sym_LBRACK, ACTIONS 59), (anon_sym_LBRACE, ACTIONS 61), (anon_sym_global, ACTIONS 63),
    (anon_sym_nonlocal, ACTIONS 65), (anon_sym_exec, ACTIONS 67), (anon_sym_type, ACTIONS 69),
    (anon_sym_class, ACTIONS 121), (anon_sym_struct, ACTIONS 121), (anon_sym_mut, ACTIONS 73),
    (anon_sym_out, ACTIONS 73), (anon_sym_trait, ACTIONS 123), (anon_sym_AT, ACTIONS 77),
    (anon_sym_DASH, ACTIONS 79), (anon_sym_PLUS, ACTIONS 79), (anon_sym_ref, ACTIONS 81),
    (anon_sym_var, ACTIONS 81), (anon_sym_not, ACTIONS 83), (anon_sym_TILDE, ACTIONS 79),
    (anon_sym_lambda, ACTIONS 85), (anon_sym_yield, ACTIONS 87), (sym_ellipsis, ACTIONS 89),
    (anon_sym___mlir_type, ACTIONS 91), (sym_integer, ACTIONS 93), (sym_float, ACTIONS 89),
    (anon_sym_await, ACTIONS 95), (sym_true, ACTIONS 93), (sym_false, ACTIONS 93),
    (sym_none, ACTIONS 93), (sym_comment, ACTIONS 3), (sym_line_continuation, ACTIONS 3),
    (sym__dedent, ACTIONS 129), (sym_string_start, ACTIONS 97)]"

definition parse_table_64 :: "(nat \<times> nat) list" where "parse_table_64 = [
    (sym__statement, STATE 925), (sym__simple_statements, STATE 925),
    (sym_import_statement, STATE 11814), (sym_future_import_statement, STATE 11814),
    (sym_import_from_statement, STATE 11814), (sym_print_statement, STATE 11814),
    (sym_assert_statement, STATE 11814), (sym_comptime_assert_statement, STATE 11814),
    (sym_expression_statement, STATE 11814), (sym_tuple_expression, STATE 12425),
    (sym_named_expression, STATE 7969), (sym__named_expression_lhs, STATE 12752),
    (sym_return_statement, STATE 11814), (sym_delete_statement, STATE 11814),
    (sym_raise_statement, STATE 11814), (sym_pass_statement, STATE 11814),
    (sym_break_statement, STATE 11814), (sym_continue_statement, STATE 11814),
    (sym_extension_definition, STATE 925), (sym_mlir_region, STATE 925),
    (sym_comptime_statement, STATE 925), (sym_if_statement, STATE 925),
    (sym_match_statement, STATE 925), (sym_for_statement, STATE 925),
    (sym_while_statement, STATE 925), (sym_try_statement, STATE 925),
    (sym_with_statement, STATE 925), (sym_function_definition, STATE 925),
    (sym_global_statement, STATE 11814), (sym_nonlocal_statement, STATE 11814),
    (sym_exec_statement, STATE 11814), (sym_type_alias_statement, STATE 11814),
    (sym_parameterized_alias_statement, STATE 11814), (sym_class_definition, STATE 925),
    (sym_trait_definition, STATE 925), (sym_decorated_definition, STATE 925),
    (sym_decorator, STATE 3670), (sym_block, STATE 5958), (sym_pattern, STATE 8086),
    (sym_tuple_pattern, STATE 8101), (sym_list_pattern, STATE 8101),
    (sym_list_splat_pattern, STATE 6819), (sym_as_pattern, STATE 7969),
    (sym_expression, STATE 9883), (sym_primary_expression, STATE 7326),
    (sym_comptime_expression, STATE 7017), (sym_transfer_expression, STATE 7017),
    (sym_not_operator, STATE 7969), (sym_boolean_operator, STATE 7969),
    (sym_binary_operator, STATE 7017), (sym_unary_operator, STATE 7017),
    (sym_comparison_operator, STATE 7969), (sym_lambda, STATE 7969),
    (sym_assignment, STATE 12425), (sym_augmented_assignment, STATE 12425),
    (sym_pattern_list, STATE 8578), (sym_yield, STATE 12425), (sym_attribute, STATE 6836),
    (sym_subscript, STATE 6838), (sym_call, STATE 6845), (sym_mlir_type, STATE 7017),
    (sym_list, STATE 7017), (sym_set, STATE 7017), (sym_tuple, STATE 7017),
    (sym_dictionary, STATE 7017), (sym_struct_literal, STATE 7017),
    (sym_list_comprehension, STATE 7017), (sym_dictionary_comprehension, STATE 7017),
    (sym_set_comprehension, STATE 7017), (sym_generator_expression, STATE 7017),
    (sym_parenthesized_expression, STATE 7017), (sym_conditional_expression, STATE 7969),
    (sym_concatenated_string, STATE 7017), (sym_string, STATE 6751), (sym_await, STATE 7017),
    (aux_sym_module_repeat1, STATE 925), (aux_sym_decorated_definition_repeat1, STATE 3670),
    (sym_identifier, ACTIONS 9), (anon_sym_import, ACTIONS 11), (anon_sym_from, ACTIONS 13),
    (anon_sym_LPAREN, ACTIONS 15), (anon_sym_STAR, ACTIONS 17), (anon_sym_print, ACTIONS 19),
    (anon_sym_comptime, ACTIONS 99), (anon_sym_assert, ACTIONS 23),
    (anon_sym___comptime_assert, ACTIONS 25), (anon_sym_return, ACTIONS 27),
    (anon_sym_del, ACTIONS 29), (anon_sym_raise, ACTIONS 31), (anon_sym_pass, ACTIONS 33),
    (anon_sym_break, ACTIONS 35), (anon_sym_continue, ACTIONS 37),
    (anon_sym___extension, ACTIONS 101), (anon_sym___mlir_region, ACTIONS 103),
    (anon_sym_if, ACTIONS 105), (anon_sym_match, ACTIONS 107), (anon_sym_async, ACTIONS 109),
    (anon_sym_for, ACTIONS 111), (anon_sym_while, ACTIONS 113), (anon_sym_try, ACTIONS 115),
    (anon_sym_with, ACTIONS 117), (anon_sym_def, ACTIONS 119), (anon_sym_fn, ACTIONS 119),
    (anon_sym_LBRACK, ACTIONS 59), (anon_sym_LBRACE, ACTIONS 61), (anon_sym_global, ACTIONS 63),
    (anon_sym_nonlocal, ACTIONS 65), (anon_sym_exec, ACTIONS 67), (anon_sym_type, ACTIONS 69),
    (anon_sym_class, ACTIONS 121), (anon_sym_struct, ACTIONS 121), (anon_sym_mut, ACTIONS 73),
    (anon_sym_out, ACTIONS 73), (anon_sym_trait, ACTIONS 123), (anon_sym_AT, ACTIONS 77),
    (anon_sym_DASH, ACTIONS 79), (anon_sym_PLUS, ACTIONS 79), (anon_sym_ref, ACTIONS 81),
    (anon_sym_var, ACTIONS 81), (anon_sym_not, ACTIONS 83), (anon_sym_TILDE, ACTIONS 79),
    (anon_sym_lambda, ACTIONS 85), (anon_sym_yield, ACTIONS 87), (sym_ellipsis, ACTIONS 89),
    (anon_sym___mlir_type, ACTIONS 91), (sym_integer, ACTIONS 93), (sym_float, ACTIONS 89),
    (anon_sym_await, ACTIONS 95), (sym_true, ACTIONS 93), (sym_false, ACTIONS 93),
    (sym_none, ACTIONS 93), (sym_comment, ACTIONS 3), (sym_line_continuation, ACTIONS 3),
    (sym__dedent, ACTIONS 129), (sym_string_start, ACTIONS 97)]"

definition parse_table_65 :: "(nat \<times> nat) list" where "parse_table_65 = [
    (sym__statement, STATE 925), (sym__simple_statements, STATE 925),
    (sym_import_statement, STATE 11814), (sym_future_import_statement, STATE 11814),
    (sym_import_from_statement, STATE 11814), (sym_print_statement, STATE 11814),
    (sym_assert_statement, STATE 11814), (sym_comptime_assert_statement, STATE 11814),
    (sym_expression_statement, STATE 11814), (sym_tuple_expression, STATE 12425),
    (sym_named_expression, STATE 7969), (sym__named_expression_lhs, STATE 12752),
    (sym_return_statement, STATE 11814), (sym_delete_statement, STATE 11814),
    (sym_raise_statement, STATE 11814), (sym_pass_statement, STATE 11814),
    (sym_break_statement, STATE 11814), (sym_continue_statement, STATE 11814),
    (sym_extension_definition, STATE 925), (sym_mlir_region, STATE 925),
    (sym_comptime_statement, STATE 925), (sym_if_statement, STATE 925),
    (sym_match_statement, STATE 925), (sym_for_statement, STATE 925),
    (sym_while_statement, STATE 925), (sym_try_statement, STATE 925),
    (sym_with_statement, STATE 925), (sym_function_definition, STATE 925),
    (sym_global_statement, STATE 11814), (sym_nonlocal_statement, STATE 11814),
    (sym_exec_statement, STATE 11814), (sym_type_alias_statement, STATE 11814),
    (sym_parameterized_alias_statement, STATE 11814), (sym_class_definition, STATE 925),
    (sym_trait_definition, STATE 925), (sym_decorated_definition, STATE 925),
    (sym_decorator, STATE 3670), (sym_block, STATE 5984), (sym_pattern, STATE 8086),
    (sym_tuple_pattern, STATE 8101), (sym_list_pattern, STATE 8101),
    (sym_list_splat_pattern, STATE 6819), (sym_as_pattern, STATE 7969),
    (sym_expression, STATE 9883), (sym_primary_expression, STATE 7326),
    (sym_comptime_expression, STATE 7017), (sym_transfer_expression, STATE 7017),
    (sym_not_operator, STATE 7969), (sym_boolean_operator, STATE 7969),
    (sym_binary_operator, STATE 7017), (sym_unary_operator, STATE 7017),
    (sym_comparison_operator, STATE 7969), (sym_lambda, STATE 7969),
    (sym_assignment, STATE 12425), (sym_augmented_assignment, STATE 12425),
    (sym_pattern_list, STATE 8578), (sym_yield, STATE 12425), (sym_attribute, STATE 6836),
    (sym_subscript, STATE 6838), (sym_call, STATE 6845), (sym_mlir_type, STATE 7017),
    (sym_list, STATE 7017), (sym_set, STATE 7017), (sym_tuple, STATE 7017),
    (sym_dictionary, STATE 7017), (sym_struct_literal, STATE 7017),
    (sym_list_comprehension, STATE 7017), (sym_dictionary_comprehension, STATE 7017),
    (sym_set_comprehension, STATE 7017), (sym_generator_expression, STATE 7017),
    (sym_parenthesized_expression, STATE 7017), (sym_conditional_expression, STATE 7969),
    (sym_concatenated_string, STATE 7017), (sym_string, STATE 6751), (sym_await, STATE 7017),
    (aux_sym_module_repeat1, STATE 925), (aux_sym_decorated_definition_repeat1, STATE 3670),
    (sym_identifier, ACTIONS 9), (anon_sym_import, ACTIONS 11), (anon_sym_from, ACTIONS 13),
    (anon_sym_LPAREN, ACTIONS 15), (anon_sym_STAR, ACTIONS 17), (anon_sym_print, ACTIONS 19),
    (anon_sym_comptime, ACTIONS 99), (anon_sym_assert, ACTIONS 23),
    (anon_sym___comptime_assert, ACTIONS 25), (anon_sym_return, ACTIONS 27),
    (anon_sym_del, ACTIONS 29), (anon_sym_raise, ACTIONS 31), (anon_sym_pass, ACTIONS 33),
    (anon_sym_break, ACTIONS 35), (anon_sym_continue, ACTIONS 37),
    (anon_sym___extension, ACTIONS 101), (anon_sym___mlir_region, ACTIONS 103),
    (anon_sym_if, ACTIONS 105), (anon_sym_match, ACTIONS 107), (anon_sym_async, ACTIONS 109),
    (anon_sym_for, ACTIONS 111), (anon_sym_while, ACTIONS 113), (anon_sym_try, ACTIONS 115),
    (anon_sym_with, ACTIONS 117), (anon_sym_def, ACTIONS 119), (anon_sym_fn, ACTIONS 119),
    (anon_sym_LBRACK, ACTIONS 59), (anon_sym_LBRACE, ACTIONS 61), (anon_sym_global, ACTIONS 63),
    (anon_sym_nonlocal, ACTIONS 65), (anon_sym_exec, ACTIONS 67), (anon_sym_type, ACTIONS 69),
    (anon_sym_class, ACTIONS 121), (anon_sym_struct, ACTIONS 121), (anon_sym_mut, ACTIONS 73),
    (anon_sym_out, ACTIONS 73), (anon_sym_trait, ACTIONS 123), (anon_sym_AT, ACTIONS 77),
    (anon_sym_DASH, ACTIONS 79), (anon_sym_PLUS, ACTIONS 79), (anon_sym_ref, ACTIONS 81),
    (anon_sym_var, ACTIONS 81), (anon_sym_not, ACTIONS 83), (anon_sym_TILDE, ACTIONS 79),
    (anon_sym_lambda, ACTIONS 85), (anon_sym_yield, ACTIONS 87), (sym_ellipsis, ACTIONS 89),
    (anon_sym___mlir_type, ACTIONS 91), (sym_integer, ACTIONS 93), (sym_float, ACTIONS 89),
    (anon_sym_await, ACTIONS 95), (sym_true, ACTIONS 93), (sym_false, ACTIONS 93),
    (sym_none, ACTIONS 93), (sym_comment, ACTIONS 3), (sym_line_continuation, ACTIONS 3),
    (sym__dedent, ACTIONS 129), (sym_string_start, ACTIONS 97)]"

definition parse_table_66 :: "(nat \<times> nat) list" where "parse_table_66 = [
    (sym__statement, STATE 925), (sym__simple_statements, STATE 925),
    (sym_import_statement, STATE 11814), (sym_future_import_statement, STATE 11814),
    (sym_import_from_statement, STATE 11814), (sym_print_statement, STATE 11814),
    (sym_assert_statement, STATE 11814), (sym_comptime_assert_statement, STATE 11814),
    (sym_expression_statement, STATE 11814), (sym_tuple_expression, STATE 12425),
    (sym_named_expression, STATE 7969), (sym__named_expression_lhs, STATE 12752),
    (sym_return_statement, STATE 11814), (sym_delete_statement, STATE 11814),
    (sym_raise_statement, STATE 11814), (sym_pass_statement, STATE 11814),
    (sym_break_statement, STATE 11814), (sym_continue_statement, STATE 11814),
    (sym_extension_definition, STATE 925), (sym_mlir_region, STATE 925),
    (sym_comptime_statement, STATE 925), (sym_if_statement, STATE 925),
    (sym_match_statement, STATE 925), (sym_for_statement, STATE 925),
    (sym_while_statement, STATE 925), (sym_try_statement, STATE 925),
    (sym_with_statement, STATE 925), (sym_function_definition, STATE 925),
    (sym_global_statement, STATE 11814), (sym_nonlocal_statement, STATE 11814),
    (sym_exec_statement, STATE 11814), (sym_type_alias_statement, STATE 11814),
    (sym_parameterized_alias_statement, STATE 11814), (sym_class_definition, STATE 925),
    (sym_trait_definition, STATE 925), (sym_decorated_definition, STATE 925),
    (sym_decorator, STATE 3670), (sym_block, STATE 6056), (sym_pattern, STATE 8086),
    (sym_tuple_pattern, STATE 8101), (sym_list_pattern, STATE 8101),
    (sym_list_splat_pattern, STATE 6819), (sym_as_pattern, STATE 7969),
    (sym_expression, STATE 9883), (sym_primary_expression, STATE 7326),
    (sym_comptime_expression, STATE 7017), (sym_transfer_expression, STATE 7017),
    (sym_not_operator, STATE 7969), (sym_boolean_operator, STATE 7969),
    (sym_binary_operator, STATE 7017), (sym_unary_operator, STATE 7017),
    (sym_comparison_operator, STATE 7969), (sym_lambda, STATE 7969),
    (sym_assignment, STATE 12425), (sym_augmented_assignment, STATE 12425),
    (sym_pattern_list, STATE 8578), (sym_yield, STATE 12425), (sym_attribute, STATE 6836),
    (sym_subscript, STATE 6838), (sym_call, STATE 6845), (sym_mlir_type, STATE 7017),
    (sym_list, STATE 7017), (sym_set, STATE 7017), (sym_tuple, STATE 7017),
    (sym_dictionary, STATE 7017), (sym_struct_literal, STATE 7017),
    (sym_list_comprehension, STATE 7017), (sym_dictionary_comprehension, STATE 7017),
    (sym_set_comprehension, STATE 7017), (sym_generator_expression, STATE 7017),
    (sym_parenthesized_expression, STATE 7017), (sym_conditional_expression, STATE 7969),
    (sym_concatenated_string, STATE 7017), (sym_string, STATE 6751), (sym_await, STATE 7017),
    (aux_sym_module_repeat1, STATE 925), (aux_sym_decorated_definition_repeat1, STATE 3670),
    (sym_identifier, ACTIONS 9), (anon_sym_import, ACTIONS 11), (anon_sym_from, ACTIONS 13),
    (anon_sym_LPAREN, ACTIONS 15), (anon_sym_STAR, ACTIONS 17), (anon_sym_print, ACTIONS 19),
    (anon_sym_comptime, ACTIONS 99), (anon_sym_assert, ACTIONS 23),
    (anon_sym___comptime_assert, ACTIONS 25), (anon_sym_return, ACTIONS 27),
    (anon_sym_del, ACTIONS 29), (anon_sym_raise, ACTIONS 31), (anon_sym_pass, ACTIONS 33),
    (anon_sym_break, ACTIONS 35), (anon_sym_continue, ACTIONS 37),
    (anon_sym___extension, ACTIONS 101), (anon_sym___mlir_region, ACTIONS 103),
    (anon_sym_if, ACTIONS 105), (anon_sym_match, ACTIONS 107), (anon_sym_async, ACTIONS 109),
    (anon_sym_for, ACTIONS 111), (anon_sym_while, ACTIONS 113), (anon_sym_try, ACTIONS 115),
    (anon_sym_with, ACTIONS 117), (anon_sym_def, ACTIONS 119), (anon_sym_fn, ACTIONS 119),
    (anon_sym_LBRACK, ACTIONS 59), (anon_sym_LBRACE, ACTIONS 61), (anon_sym_global, ACTIONS 63),
    (anon_sym_nonlocal, ACTIONS 65), (anon_sym_exec, ACTIONS 67), (anon_sym_type, ACTIONS 69),
    (anon_sym_class, ACTIONS 121), (anon_sym_struct, ACTIONS 121), (anon_sym_mut, ACTIONS 73),
    (anon_sym_out, ACTIONS 73), (anon_sym_trait, ACTIONS 123), (anon_sym_AT, ACTIONS 77),
    (anon_sym_DASH, ACTIONS 79), (anon_sym_PLUS, ACTIONS 79), (anon_sym_ref, ACTIONS 81),
    (anon_sym_var, ACTIONS 81), (anon_sym_not, ACTIONS 83), (anon_sym_TILDE, ACTIONS 79),
    (anon_sym_lambda, ACTIONS 85), (anon_sym_yield, ACTIONS 87), (sym_ellipsis, ACTIONS 89),
    (anon_sym___mlir_type, ACTIONS 91), (sym_integer, ACTIONS 93), (sym_float, ACTIONS 89),
    (anon_sym_await, ACTIONS 95), (sym_true, ACTIONS 93), (sym_false, ACTIONS 93),
    (sym_none, ACTIONS 93), (sym_comment, ACTIONS 3), (sym_line_continuation, ACTIONS 3),
    (sym__dedent, ACTIONS 129), (sym_string_start, ACTIONS 97)]"

definition parse_table_67 :: "(nat \<times> nat) list" where "parse_table_67 = [
    (sym__statement, STATE 925), (sym__simple_statements, STATE 925),
    (sym_import_statement, STATE 11814), (sym_future_import_statement, STATE 11814),
    (sym_import_from_statement, STATE 11814), (sym_print_statement, STATE 11814),
    (sym_assert_statement, STATE 11814), (sym_comptime_assert_statement, STATE 11814),
    (sym_expression_statement, STATE 11814), (sym_tuple_expression, STATE 12425),
    (sym_named_expression, STATE 7969), (sym__named_expression_lhs, STATE 12752),
    (sym_return_statement, STATE 11814), (sym_delete_statement, STATE 11814),
    (sym_raise_statement, STATE 11814), (sym_pass_statement, STATE 11814),
    (sym_break_statement, STATE 11814), (sym_continue_statement, STATE 11814),
    (sym_extension_definition, STATE 925), (sym_mlir_region, STATE 925),
    (sym_comptime_statement, STATE 925), (sym_if_statement, STATE 925),
    (sym_match_statement, STATE 925), (sym_for_statement, STATE 925),
    (sym_while_statement, STATE 925), (sym_try_statement, STATE 925),
    (sym_with_statement, STATE 925), (sym_function_definition, STATE 925),
    (sym_global_statement, STATE 11814), (sym_nonlocal_statement, STATE 11814),
    (sym_exec_statement, STATE 11814), (sym_type_alias_statement, STATE 11814),
    (sym_parameterized_alias_statement, STATE 11814), (sym_class_definition, STATE 925),
    (sym_trait_definition, STATE 925), (sym_decorated_definition, STATE 925),
    (sym_decorator, STATE 3670), (sym_block, STATE 6063), (sym_pattern, STATE 8086),
    (sym_tuple_pattern, STATE 8101), (sym_list_pattern, STATE 8101),
    (sym_list_splat_pattern, STATE 6819), (sym_as_pattern, STATE 7969),
    (sym_expression, STATE 9883), (sym_primary_expression, STATE 7326),
    (sym_comptime_expression, STATE 7017), (sym_transfer_expression, STATE 7017),
    (sym_not_operator, STATE 7969), (sym_boolean_operator, STATE 7969),
    (sym_binary_operator, STATE 7017), (sym_unary_operator, STATE 7017),
    (sym_comparison_operator, STATE 7969), (sym_lambda, STATE 7969),
    (sym_assignment, STATE 12425), (sym_augmented_assignment, STATE 12425),
    (sym_pattern_list, STATE 8578), (sym_yield, STATE 12425), (sym_attribute, STATE 6836),
    (sym_subscript, STATE 6838), (sym_call, STATE 6845), (sym_mlir_type, STATE 7017),
    (sym_list, STATE 7017), (sym_set, STATE 7017), (sym_tuple, STATE 7017),
    (sym_dictionary, STATE 7017), (sym_struct_literal, STATE 7017),
    (sym_list_comprehension, STATE 7017), (sym_dictionary_comprehension, STATE 7017),
    (sym_set_comprehension, STATE 7017), (sym_generator_expression, STATE 7017),
    (sym_parenthesized_expression, STATE 7017), (sym_conditional_expression, STATE 7969),
    (sym_concatenated_string, STATE 7017), (sym_string, STATE 6751), (sym_await, STATE 7017),
    (aux_sym_module_repeat1, STATE 925), (aux_sym_decorated_definition_repeat1, STATE 3670),
    (sym_identifier, ACTIONS 9), (anon_sym_import, ACTIONS 11), (anon_sym_from, ACTIONS 13),
    (anon_sym_LPAREN, ACTIONS 15), (anon_sym_STAR, ACTIONS 17), (anon_sym_print, ACTIONS 19),
    (anon_sym_comptime, ACTIONS 99), (anon_sym_assert, ACTIONS 23),
    (anon_sym___comptime_assert, ACTIONS 25), (anon_sym_return, ACTIONS 27),
    (anon_sym_del, ACTIONS 29), (anon_sym_raise, ACTIONS 31), (anon_sym_pass, ACTIONS 33),
    (anon_sym_break, ACTIONS 35), (anon_sym_continue, ACTIONS 37),
    (anon_sym___extension, ACTIONS 101), (anon_sym___mlir_region, ACTIONS 103),
    (anon_sym_if, ACTIONS 105), (anon_sym_match, ACTIONS 107), (anon_sym_async, ACTIONS 109),
    (anon_sym_for, ACTIONS 111), (anon_sym_while, ACTIONS 113), (anon_sym_try, ACTIONS 115),
    (anon_sym_with, ACTIONS 117), (anon_sym_def, ACTIONS 119), (anon_sym_fn, ACTIONS 119),
    (anon_sym_LBRACK, ACTIONS 59), (anon_sym_LBRACE, ACTIONS 61), (anon_sym_global, ACTIONS 63),
    (anon_sym_nonlocal, ACTIONS 65), (anon_sym_exec, ACTIONS 67), (anon_sym_type, ACTIONS 69),
    (anon_sym_class, ACTIONS 121), (anon_sym_struct, ACTIONS 121), (anon_sym_mut, ACTIONS 73),
    (anon_sym_out, ACTIONS 73), (anon_sym_trait, ACTIONS 123), (anon_sym_AT, ACTIONS 77),
    (anon_sym_DASH, ACTIONS 79), (anon_sym_PLUS, ACTIONS 79), (anon_sym_ref, ACTIONS 81),
    (anon_sym_var, ACTIONS 81), (anon_sym_not, ACTIONS 83), (anon_sym_TILDE, ACTIONS 79),
    (anon_sym_lambda, ACTIONS 85), (anon_sym_yield, ACTIONS 87), (sym_ellipsis, ACTIONS 89),
    (anon_sym___mlir_type, ACTIONS 91), (sym_integer, ACTIONS 93), (sym_float, ACTIONS 89),
    (anon_sym_await, ACTIONS 95), (sym_true, ACTIONS 93), (sym_false, ACTIONS 93),
    (sym_none, ACTIONS 93), (sym_comment, ACTIONS 3), (sym_line_continuation, ACTIONS 3),
    (sym__dedent, ACTIONS 129), (sym_string_start, ACTIONS 97)]"

definition parse_table_68 :: "(nat \<times> nat) list" where "parse_table_68 = [
    (sym__statement, STATE 925), (sym__simple_statements, STATE 925),
    (sym_import_statement, STATE 11814), (sym_future_import_statement, STATE 11814),
    (sym_import_from_statement, STATE 11814), (sym_print_statement, STATE 11814),
    (sym_assert_statement, STATE 11814), (sym_comptime_assert_statement, STATE 11814),
    (sym_expression_statement, STATE 11814), (sym_tuple_expression, STATE 12425),
    (sym_named_expression, STATE 7969), (sym__named_expression_lhs, STATE 12752),
    (sym_return_statement, STATE 11814), (sym_delete_statement, STATE 11814),
    (sym_raise_statement, STATE 11814), (sym_pass_statement, STATE 11814),
    (sym_break_statement, STATE 11814), (sym_continue_statement, STATE 11814),
    (sym_extension_definition, STATE 925), (sym_mlir_region, STATE 925),
    (sym_comptime_statement, STATE 925), (sym_if_statement, STATE 925),
    (sym_match_statement, STATE 925), (sym_for_statement, STATE 925),
    (sym_while_statement, STATE 925), (sym_try_statement, STATE 925),
    (sym_with_statement, STATE 925), (sym_function_definition, STATE 925),
    (sym_global_statement, STATE 11814), (sym_nonlocal_statement, STATE 11814),
    (sym_exec_statement, STATE 11814), (sym_type_alias_statement, STATE 11814),
    (sym_parameterized_alias_statement, STATE 11814), (sym_class_definition, STATE 925),
    (sym_trait_definition, STATE 925), (sym_decorated_definition, STATE 925),
    (sym_decorator, STATE 3670), (sym_block, STATE 6094), (sym_pattern, STATE 8086),
    (sym_tuple_pattern, STATE 8101), (sym_list_pattern, STATE 8101),
    (sym_list_splat_pattern, STATE 6819), (sym_as_pattern, STATE 7969),
    (sym_expression, STATE 9883), (sym_primary_expression, STATE 7326),
    (sym_comptime_expression, STATE 7017), (sym_transfer_expression, STATE 7017),
    (sym_not_operator, STATE 7969), (sym_boolean_operator, STATE 7969),
    (sym_binary_operator, STATE 7017), (sym_unary_operator, STATE 7017),
    (sym_comparison_operator, STATE 7969), (sym_lambda, STATE 7969),
    (sym_assignment, STATE 12425), (sym_augmented_assignment, STATE 12425),
    (sym_pattern_list, STATE 8578), (sym_yield, STATE 12425), (sym_attribute, STATE 6836),
    (sym_subscript, STATE 6838), (sym_call, STATE 6845), (sym_mlir_type, STATE 7017),
    (sym_list, STATE 7017), (sym_set, STATE 7017), (sym_tuple, STATE 7017),
    (sym_dictionary, STATE 7017), (sym_struct_literal, STATE 7017),
    (sym_list_comprehension, STATE 7017), (sym_dictionary_comprehension, STATE 7017),
    (sym_set_comprehension, STATE 7017), (sym_generator_expression, STATE 7017),
    (sym_parenthesized_expression, STATE 7017), (sym_conditional_expression, STATE 7969),
    (sym_concatenated_string, STATE 7017), (sym_string, STATE 6751), (sym_await, STATE 7017),
    (aux_sym_module_repeat1, STATE 925), (aux_sym_decorated_definition_repeat1, STATE 3670),
    (sym_identifier, ACTIONS 9), (anon_sym_import, ACTIONS 11), (anon_sym_from, ACTIONS 13),
    (anon_sym_LPAREN, ACTIONS 15), (anon_sym_STAR, ACTIONS 17), (anon_sym_print, ACTIONS 19),
    (anon_sym_comptime, ACTIONS 99), (anon_sym_assert, ACTIONS 23),
    (anon_sym___comptime_assert, ACTIONS 25), (anon_sym_return, ACTIONS 27),
    (anon_sym_del, ACTIONS 29), (anon_sym_raise, ACTIONS 31), (anon_sym_pass, ACTIONS 33),
    (anon_sym_break, ACTIONS 35), (anon_sym_continue, ACTIONS 37),
    (anon_sym___extension, ACTIONS 101), (anon_sym___mlir_region, ACTIONS 103),
    (anon_sym_if, ACTIONS 105), (anon_sym_match, ACTIONS 107), (anon_sym_async, ACTIONS 109),
    (anon_sym_for, ACTIONS 111), (anon_sym_while, ACTIONS 113), (anon_sym_try, ACTIONS 115),
    (anon_sym_with, ACTIONS 117), (anon_sym_def, ACTIONS 119), (anon_sym_fn, ACTIONS 119),
    (anon_sym_LBRACK, ACTIONS 59), (anon_sym_LBRACE, ACTIONS 61), (anon_sym_global, ACTIONS 63),
    (anon_sym_nonlocal, ACTIONS 65), (anon_sym_exec, ACTIONS 67), (anon_sym_type, ACTIONS 69),
    (anon_sym_class, ACTIONS 121), (anon_sym_struct, ACTIONS 121), (anon_sym_mut, ACTIONS 73),
    (anon_sym_out, ACTIONS 73), (anon_sym_trait, ACTIONS 123), (anon_sym_AT, ACTIONS 77),
    (anon_sym_DASH, ACTIONS 79), (anon_sym_PLUS, ACTIONS 79), (anon_sym_ref, ACTIONS 81),
    (anon_sym_var, ACTIONS 81), (anon_sym_not, ACTIONS 83), (anon_sym_TILDE, ACTIONS 79),
    (anon_sym_lambda, ACTIONS 85), (anon_sym_yield, ACTIONS 87), (sym_ellipsis, ACTIONS 89),
    (anon_sym___mlir_type, ACTIONS 91), (sym_integer, ACTIONS 93), (sym_float, ACTIONS 89),
    (anon_sym_await, ACTIONS 95), (sym_true, ACTIONS 93), (sym_false, ACTIONS 93),
    (sym_none, ACTIONS 93), (sym_comment, ACTIONS 3), (sym_line_continuation, ACTIONS 3),
    (sym__dedent, ACTIONS 129), (sym_string_start, ACTIONS 97)]"

definition parse_table_69 :: "(nat \<times> nat) list" where "parse_table_69 = [
    (sym__statement, STATE 925), (sym__simple_statements, STATE 925),
    (sym_import_statement, STATE 11814), (sym_future_import_statement, STATE 11814),
    (sym_import_from_statement, STATE 11814), (sym_print_statement, STATE 11814),
    (sym_assert_statement, STATE 11814), (sym_comptime_assert_statement, STATE 11814),
    (sym_expression_statement, STATE 11814), (sym_tuple_expression, STATE 12425),
    (sym_named_expression, STATE 7969), (sym__named_expression_lhs, STATE 12752),
    (sym_return_statement, STATE 11814), (sym_delete_statement, STATE 11814),
    (sym_raise_statement, STATE 11814), (sym_pass_statement, STATE 11814),
    (sym_break_statement, STATE 11814), (sym_continue_statement, STATE 11814),
    (sym_extension_definition, STATE 925), (sym_mlir_region, STATE 925),
    (sym_comptime_statement, STATE 925), (sym_if_statement, STATE 925),
    (sym_match_statement, STATE 925), (sym_for_statement, STATE 925),
    (sym_while_statement, STATE 925), (sym_try_statement, STATE 925),
    (sym_with_statement, STATE 925), (sym_function_definition, STATE 925),
    (sym_global_statement, STATE 11814), (sym_nonlocal_statement, STATE 11814),
    (sym_exec_statement, STATE 11814), (sym_type_alias_statement, STATE 11814),
    (sym_parameterized_alias_statement, STATE 11814), (sym_class_definition, STATE 925),
    (sym_trait_definition, STATE 925), (sym_decorated_definition, STATE 925),
    (sym_decorator, STATE 3670), (sym_block, STATE 6113), (sym_pattern, STATE 8086),
    (sym_tuple_pattern, STATE 8101), (sym_list_pattern, STATE 8101),
    (sym_list_splat_pattern, STATE 6819), (sym_as_pattern, STATE 7969),
    (sym_expression, STATE 9883), (sym_primary_expression, STATE 7326),
    (sym_comptime_expression, STATE 7017), (sym_transfer_expression, STATE 7017),
    (sym_not_operator, STATE 7969), (sym_boolean_operator, STATE 7969),
    (sym_binary_operator, STATE 7017), (sym_unary_operator, STATE 7017),
    (sym_comparison_operator, STATE 7969), (sym_lambda, STATE 7969),
    (sym_assignment, STATE 12425), (sym_augmented_assignment, STATE 12425),
    (sym_pattern_list, STATE 8578), (sym_yield, STATE 12425), (sym_attribute, STATE 6836),
    (sym_subscript, STATE 6838), (sym_call, STATE 6845), (sym_mlir_type, STATE 7017),
    (sym_list, STATE 7017), (sym_set, STATE 7017), (sym_tuple, STATE 7017),
    (sym_dictionary, STATE 7017), (sym_struct_literal, STATE 7017),
    (sym_list_comprehension, STATE 7017), (sym_dictionary_comprehension, STATE 7017),
    (sym_set_comprehension, STATE 7017), (sym_generator_expression, STATE 7017),
    (sym_parenthesized_expression, STATE 7017), (sym_conditional_expression, STATE 7969),
    (sym_concatenated_string, STATE 7017), (sym_string, STATE 6751), (sym_await, STATE 7017),
    (aux_sym_module_repeat1, STATE 925), (aux_sym_decorated_definition_repeat1, STATE 3670),
    (sym_identifier, ACTIONS 9), (anon_sym_import, ACTIONS 11), (anon_sym_from, ACTIONS 13),
    (anon_sym_LPAREN, ACTIONS 15), (anon_sym_STAR, ACTIONS 17), (anon_sym_print, ACTIONS 19),
    (anon_sym_comptime, ACTIONS 99), (anon_sym_assert, ACTIONS 23),
    (anon_sym___comptime_assert, ACTIONS 25), (anon_sym_return, ACTIONS 27),
    (anon_sym_del, ACTIONS 29), (anon_sym_raise, ACTIONS 31), (anon_sym_pass, ACTIONS 33),
    (anon_sym_break, ACTIONS 35), (anon_sym_continue, ACTIONS 37),
    (anon_sym___extension, ACTIONS 101), (anon_sym___mlir_region, ACTIONS 103),
    (anon_sym_if, ACTIONS 105), (anon_sym_match, ACTIONS 107), (anon_sym_async, ACTIONS 109),
    (anon_sym_for, ACTIONS 111), (anon_sym_while, ACTIONS 113), (anon_sym_try, ACTIONS 115),
    (anon_sym_with, ACTIONS 117), (anon_sym_def, ACTIONS 119), (anon_sym_fn, ACTIONS 119),
    (anon_sym_LBRACK, ACTIONS 59), (anon_sym_LBRACE, ACTIONS 61), (anon_sym_global, ACTIONS 63),
    (anon_sym_nonlocal, ACTIONS 65), (anon_sym_exec, ACTIONS 67), (anon_sym_type, ACTIONS 69),
    (anon_sym_class, ACTIONS 121), (anon_sym_struct, ACTIONS 121), (anon_sym_mut, ACTIONS 73),
    (anon_sym_out, ACTIONS 73), (anon_sym_trait, ACTIONS 123), (anon_sym_AT, ACTIONS 77),
    (anon_sym_DASH, ACTIONS 79), (anon_sym_PLUS, ACTIONS 79), (anon_sym_ref, ACTIONS 81),
    (anon_sym_var, ACTIONS 81), (anon_sym_not, ACTIONS 83), (anon_sym_TILDE, ACTIONS 79),
    (anon_sym_lambda, ACTIONS 85), (anon_sym_yield, ACTIONS 87), (sym_ellipsis, ACTIONS 89),
    (anon_sym___mlir_type, ACTIONS 91), (sym_integer, ACTIONS 93), (sym_float, ACTIONS 89),
    (anon_sym_await, ACTIONS 95), (sym_true, ACTIONS 93), (sym_false, ACTIONS 93),
    (sym_none, ACTIONS 93), (sym_comment, ACTIONS 3), (sym_line_continuation, ACTIONS 3),
    (sym__dedent, ACTIONS 129), (sym_string_start, ACTIONS 97)]"

definition parse_table_70 :: "(nat \<times> nat) list" where "parse_table_70 = [
    (sym__statement, STATE 925), (sym__simple_statements, STATE 925),
    (sym_import_statement, STATE 11814), (sym_future_import_statement, STATE 11814),
    (sym_import_from_statement, STATE 11814), (sym_print_statement, STATE 11814),
    (sym_assert_statement, STATE 11814), (sym_comptime_assert_statement, STATE 11814),
    (sym_expression_statement, STATE 11814), (sym_tuple_expression, STATE 12425),
    (sym_named_expression, STATE 7969), (sym__named_expression_lhs, STATE 12752),
    (sym_return_statement, STATE 11814), (sym_delete_statement, STATE 11814),
    (sym_raise_statement, STATE 11814), (sym_pass_statement, STATE 11814),
    (sym_break_statement, STATE 11814), (sym_continue_statement, STATE 11814),
    (sym_extension_definition, STATE 925), (sym_mlir_region, STATE 925),
    (sym_comptime_statement, STATE 925), (sym_if_statement, STATE 925),
    (sym_match_statement, STATE 925), (sym_for_statement, STATE 925),
    (sym_while_statement, STATE 925), (sym_try_statement, STATE 925),
    (sym_with_statement, STATE 925), (sym_function_definition, STATE 925),
    (sym_global_statement, STATE 11814), (sym_nonlocal_statement, STATE 11814),
    (sym_exec_statement, STATE 11814), (sym_type_alias_statement, STATE 11814),
    (sym_parameterized_alias_statement, STATE 11814), (sym_class_definition, STATE 925),
    (sym_trait_definition, STATE 925), (sym_decorated_definition, STATE 925),
    (sym_decorator, STATE 3670), (sym_block, STATE 6139), (sym_pattern, STATE 8086),
    (sym_tuple_pattern, STATE 8101), (sym_list_pattern, STATE 8101),
    (sym_list_splat_pattern, STATE 6819), (sym_as_pattern, STATE 7969),
    (sym_expression, STATE 9883), (sym_primary_expression, STATE 7326),
    (sym_comptime_expression, STATE 7017), (sym_transfer_expression, STATE 7017),
    (sym_not_operator, STATE 7969), (sym_boolean_operator, STATE 7969),
    (sym_binary_operator, STATE 7017), (sym_unary_operator, STATE 7017),
    (sym_comparison_operator, STATE 7969), (sym_lambda, STATE 7969),
    (sym_assignment, STATE 12425), (sym_augmented_assignment, STATE 12425),
    (sym_pattern_list, STATE 8578), (sym_yield, STATE 12425), (sym_attribute, STATE 6836),
    (sym_subscript, STATE 6838), (sym_call, STATE 6845), (sym_mlir_type, STATE 7017),
    (sym_list, STATE 7017), (sym_set, STATE 7017), (sym_tuple, STATE 7017),
    (sym_dictionary, STATE 7017), (sym_struct_literal, STATE 7017),
    (sym_list_comprehension, STATE 7017), (sym_dictionary_comprehension, STATE 7017),
    (sym_set_comprehension, STATE 7017), (sym_generator_expression, STATE 7017),
    (sym_parenthesized_expression, STATE 7017), (sym_conditional_expression, STATE 7969),
    (sym_concatenated_string, STATE 7017), (sym_string, STATE 6751), (sym_await, STATE 7017),
    (aux_sym_module_repeat1, STATE 925), (aux_sym_decorated_definition_repeat1, STATE 3670),
    (sym_identifier, ACTIONS 9), (anon_sym_import, ACTIONS 11), (anon_sym_from, ACTIONS 13),
    (anon_sym_LPAREN, ACTIONS 15), (anon_sym_STAR, ACTIONS 17), (anon_sym_print, ACTIONS 19),
    (anon_sym_comptime, ACTIONS 99), (anon_sym_assert, ACTIONS 23),
    (anon_sym___comptime_assert, ACTIONS 25), (anon_sym_return, ACTIONS 27),
    (anon_sym_del, ACTIONS 29), (anon_sym_raise, ACTIONS 31), (anon_sym_pass, ACTIONS 33),
    (anon_sym_break, ACTIONS 35), (anon_sym_continue, ACTIONS 37),
    (anon_sym___extension, ACTIONS 101), (anon_sym___mlir_region, ACTIONS 103),
    (anon_sym_if, ACTIONS 105), (anon_sym_match, ACTIONS 107), (anon_sym_async, ACTIONS 109),
    (anon_sym_for, ACTIONS 111), (anon_sym_while, ACTIONS 113), (anon_sym_try, ACTIONS 115),
    (anon_sym_with, ACTIONS 117), (anon_sym_def, ACTIONS 119), (anon_sym_fn, ACTIONS 119),
    (anon_sym_LBRACK, ACTIONS 59), (anon_sym_LBRACE, ACTIONS 61), (anon_sym_global, ACTIONS 63),
    (anon_sym_nonlocal, ACTIONS 65), (anon_sym_exec, ACTIONS 67), (anon_sym_type, ACTIONS 69),
    (anon_sym_class, ACTIONS 121), (anon_sym_struct, ACTIONS 121), (anon_sym_mut, ACTIONS 73),
    (anon_sym_out, ACTIONS 73), (anon_sym_trait, ACTIONS 123), (anon_sym_AT, ACTIONS 77),
    (anon_sym_DASH, ACTIONS 79), (anon_sym_PLUS, ACTIONS 79), (anon_sym_ref, ACTIONS 81),
    (anon_sym_var, ACTIONS 81), (anon_sym_not, ACTIONS 83), (anon_sym_TILDE, ACTIONS 79),
    (anon_sym_lambda, ACTIONS 85), (anon_sym_yield, ACTIONS 87), (sym_ellipsis, ACTIONS 89),
    (anon_sym___mlir_type, ACTIONS 91), (sym_integer, ACTIONS 93), (sym_float, ACTIONS 89),
    (anon_sym_await, ACTIONS 95), (sym_true, ACTIONS 93), (sym_false, ACTIONS 93),
    (sym_none, ACTIONS 93), (sym_comment, ACTIONS 3), (sym_line_continuation, ACTIONS 3),
    (sym__dedent, ACTIONS 129), (sym_string_start, ACTIONS 97)]"

definition parse_table_71 :: "(nat \<times> nat) list" where "parse_table_71 = [
    (sym__statement, STATE 925), (sym__simple_statements, STATE 925),
    (sym_import_statement, STATE 11814), (sym_future_import_statement, STATE 11814),
    (sym_import_from_statement, STATE 11814), (sym_print_statement, STATE 11814),
    (sym_assert_statement, STATE 11814), (sym_comptime_assert_statement, STATE 11814),
    (sym_expression_statement, STATE 11814), (sym_tuple_expression, STATE 12425),
    (sym_named_expression, STATE 7969), (sym__named_expression_lhs, STATE 12752),
    (sym_return_statement, STATE 11814), (sym_delete_statement, STATE 11814),
    (sym_raise_statement, STATE 11814), (sym_pass_statement, STATE 11814),
    (sym_break_statement, STATE 11814), (sym_continue_statement, STATE 11814),
    (sym_extension_definition, STATE 925), (sym_mlir_region, STATE 925),
    (sym_comptime_statement, STATE 925), (sym_if_statement, STATE 925),
    (sym_match_statement, STATE 925), (sym_for_statement, STATE 925),
    (sym_while_statement, STATE 925), (sym_try_statement, STATE 925),
    (sym_with_statement, STATE 925), (sym_function_definition, STATE 925),
    (sym_global_statement, STATE 11814), (sym_nonlocal_statement, STATE 11814),
    (sym_exec_statement, STATE 11814), (sym_type_alias_statement, STATE 11814),
    (sym_parameterized_alias_statement, STATE 11814), (sym_class_definition, STATE 925),
    (sym_trait_definition, STATE 925), (sym_decorated_definition, STATE 925),
    (sym_decorator, STATE 3670), (sym_block, STATE 6166), (sym_pattern, STATE 8086),
    (sym_tuple_pattern, STATE 8101), (sym_list_pattern, STATE 8101),
    (sym_list_splat_pattern, STATE 6819), (sym_as_pattern, STATE 7969),
    (sym_expression, STATE 9883), (sym_primary_expression, STATE 7326),
    (sym_comptime_expression, STATE 7017), (sym_transfer_expression, STATE 7017),
    (sym_not_operator, STATE 7969), (sym_boolean_operator, STATE 7969),
    (sym_binary_operator, STATE 7017), (sym_unary_operator, STATE 7017),
    (sym_comparison_operator, STATE 7969), (sym_lambda, STATE 7969),
    (sym_assignment, STATE 12425), (sym_augmented_assignment, STATE 12425),
    (sym_pattern_list, STATE 8578), (sym_yield, STATE 12425), (sym_attribute, STATE 6836),
    (sym_subscript, STATE 6838), (sym_call, STATE 6845), (sym_mlir_type, STATE 7017),
    (sym_list, STATE 7017), (sym_set, STATE 7017), (sym_tuple, STATE 7017),
    (sym_dictionary, STATE 7017), (sym_struct_literal, STATE 7017),
    (sym_list_comprehension, STATE 7017), (sym_dictionary_comprehension, STATE 7017),
    (sym_set_comprehension, STATE 7017), (sym_generator_expression, STATE 7017),
    (sym_parenthesized_expression, STATE 7017), (sym_conditional_expression, STATE 7969),
    (sym_concatenated_string, STATE 7017), (sym_string, STATE 6751), (sym_await, STATE 7017),
    (aux_sym_module_repeat1, STATE 925), (aux_sym_decorated_definition_repeat1, STATE 3670),
    (sym_identifier, ACTIONS 9), (anon_sym_import, ACTIONS 11), (anon_sym_from, ACTIONS 13),
    (anon_sym_LPAREN, ACTIONS 15), (anon_sym_STAR, ACTIONS 17), (anon_sym_print, ACTIONS 19),
    (anon_sym_comptime, ACTIONS 99), (anon_sym_assert, ACTIONS 23),
    (anon_sym___comptime_assert, ACTIONS 25), (anon_sym_return, ACTIONS 27),
    (anon_sym_del, ACTIONS 29), (anon_sym_raise, ACTIONS 31), (anon_sym_pass, ACTIONS 33),
    (anon_sym_break, ACTIONS 35), (anon_sym_continue, ACTIONS 37),
    (anon_sym___extension, ACTIONS 101), (anon_sym___mlir_region, ACTIONS 103),
    (anon_sym_if, ACTIONS 105), (anon_sym_match, ACTIONS 107), (anon_sym_async, ACTIONS 109),
    (anon_sym_for, ACTIONS 111), (anon_sym_while, ACTIONS 113), (anon_sym_try, ACTIONS 115),
    (anon_sym_with, ACTIONS 117), (anon_sym_def, ACTIONS 119), (anon_sym_fn, ACTIONS 119),
    (anon_sym_LBRACK, ACTIONS 59), (anon_sym_LBRACE, ACTIONS 61), (anon_sym_global, ACTIONS 63),
    (anon_sym_nonlocal, ACTIONS 65), (anon_sym_exec, ACTIONS 67), (anon_sym_type, ACTIONS 69),
    (anon_sym_class, ACTIONS 121), (anon_sym_struct, ACTIONS 121), (anon_sym_mut, ACTIONS 73),
    (anon_sym_out, ACTIONS 73), (anon_sym_trait, ACTIONS 123), (anon_sym_AT, ACTIONS 77),
    (anon_sym_DASH, ACTIONS 79), (anon_sym_PLUS, ACTIONS 79), (anon_sym_ref, ACTIONS 81),
    (anon_sym_var, ACTIONS 81), (anon_sym_not, ACTIONS 83), (anon_sym_TILDE, ACTIONS 79),
    (anon_sym_lambda, ACTIONS 85), (anon_sym_yield, ACTIONS 87), (sym_ellipsis, ACTIONS 89),
    (anon_sym___mlir_type, ACTIONS 91), (sym_integer, ACTIONS 93), (sym_float, ACTIONS 89),
    (anon_sym_await, ACTIONS 95), (sym_true, ACTIONS 93), (sym_false, ACTIONS 93),
    (sym_none, ACTIONS 93), (sym_comment, ACTIONS 3), (sym_line_continuation, ACTIONS 3),
    (sym__dedent, ACTIONS 129), (sym_string_start, ACTIONS 97)]"

definition parse_table_72 :: "(nat \<times> nat) list" where "parse_table_72 = [
    (sym__statement, STATE 925), (sym__simple_statements, STATE 925),
    (sym_import_statement, STATE 11814), (sym_future_import_statement, STATE 11814),
    (sym_import_from_statement, STATE 11814), (sym_print_statement, STATE 11814),
    (sym_assert_statement, STATE 11814), (sym_comptime_assert_statement, STATE 11814),
    (sym_expression_statement, STATE 11814), (sym_tuple_expression, STATE 12425),
    (sym_named_expression, STATE 7969), (sym__named_expression_lhs, STATE 12752),
    (sym_return_statement, STATE 11814), (sym_delete_statement, STATE 11814),
    (sym_raise_statement, STATE 11814), (sym_pass_statement, STATE 11814),
    (sym_break_statement, STATE 11814), (sym_continue_statement, STATE 11814),
    (sym_extension_definition, STATE 925), (sym_mlir_region, STATE 925),
    (sym_comptime_statement, STATE 925), (sym_if_statement, STATE 925),
    (sym_match_statement, STATE 925), (sym_for_statement, STATE 925),
    (sym_while_statement, STATE 925), (sym_try_statement, STATE 925),
    (sym_with_statement, STATE 925), (sym_function_definition, STATE 925),
    (sym_global_statement, STATE 11814), (sym_nonlocal_statement, STATE 11814),
    (sym_exec_statement, STATE 11814), (sym_type_alias_statement, STATE 11814),
    (sym_parameterized_alias_statement, STATE 11814), (sym_class_definition, STATE 925),
    (sym_trait_definition, STATE 925), (sym_decorated_definition, STATE 925),
    (sym_decorator, STATE 3670), (sym_block, STATE 6195), (sym_pattern, STATE 8086),
    (sym_tuple_pattern, STATE 8101), (sym_list_pattern, STATE 8101),
    (sym_list_splat_pattern, STATE 6819), (sym_as_pattern, STATE 7969),
    (sym_expression, STATE 9883), (sym_primary_expression, STATE 7326),
    (sym_comptime_expression, STATE 7017), (sym_transfer_expression, STATE 7017),
    (sym_not_operator, STATE 7969), (sym_boolean_operator, STATE 7969),
    (sym_binary_operator, STATE 7017), (sym_unary_operator, STATE 7017),
    (sym_comparison_operator, STATE 7969), (sym_lambda, STATE 7969),
    (sym_assignment, STATE 12425), (sym_augmented_assignment, STATE 12425),
    (sym_pattern_list, STATE 8578), (sym_yield, STATE 12425), (sym_attribute, STATE 6836),
    (sym_subscript, STATE 6838), (sym_call, STATE 6845), (sym_mlir_type, STATE 7017),
    (sym_list, STATE 7017), (sym_set, STATE 7017), (sym_tuple, STATE 7017),
    (sym_dictionary, STATE 7017), (sym_struct_literal, STATE 7017),
    (sym_list_comprehension, STATE 7017), (sym_dictionary_comprehension, STATE 7017),
    (sym_set_comprehension, STATE 7017), (sym_generator_expression, STATE 7017),
    (sym_parenthesized_expression, STATE 7017), (sym_conditional_expression, STATE 7969),
    (sym_concatenated_string, STATE 7017), (sym_string, STATE 6751), (sym_await, STATE 7017),
    (aux_sym_module_repeat1, STATE 925), (aux_sym_decorated_definition_repeat1, STATE 3670),
    (sym_identifier, ACTIONS 9), (anon_sym_import, ACTIONS 11), (anon_sym_from, ACTIONS 13),
    (anon_sym_LPAREN, ACTIONS 15), (anon_sym_STAR, ACTIONS 17), (anon_sym_print, ACTIONS 19),
    (anon_sym_comptime, ACTIONS 99), (anon_sym_assert, ACTIONS 23),
    (anon_sym___comptime_assert, ACTIONS 25), (anon_sym_return, ACTIONS 27),
    (anon_sym_del, ACTIONS 29), (anon_sym_raise, ACTIONS 31), (anon_sym_pass, ACTIONS 33),
    (anon_sym_break, ACTIONS 35), (anon_sym_continue, ACTIONS 37),
    (anon_sym___extension, ACTIONS 101), (anon_sym___mlir_region, ACTIONS 103),
    (anon_sym_if, ACTIONS 105), (anon_sym_match, ACTIONS 107), (anon_sym_async, ACTIONS 109),
    (anon_sym_for, ACTIONS 111), (anon_sym_while, ACTIONS 113), (anon_sym_try, ACTIONS 115),
    (anon_sym_with, ACTIONS 117), (anon_sym_def, ACTIONS 119), (anon_sym_fn, ACTIONS 119),
    (anon_sym_LBRACK, ACTIONS 59), (anon_sym_LBRACE, ACTIONS 61), (anon_sym_global, ACTIONS 63),
    (anon_sym_nonlocal, ACTIONS 65), (anon_sym_exec, ACTIONS 67), (anon_sym_type, ACTIONS 69),
    (anon_sym_class, ACTIONS 121), (anon_sym_struct, ACTIONS 121), (anon_sym_mut, ACTIONS 73),
    (anon_sym_out, ACTIONS 73), (anon_sym_trait, ACTIONS 123), (anon_sym_AT, ACTIONS 77),
    (anon_sym_DASH, ACTIONS 79), (anon_sym_PLUS, ACTIONS 79), (anon_sym_ref, ACTIONS 81),
    (anon_sym_var, ACTIONS 81), (anon_sym_not, ACTIONS 83), (anon_sym_TILDE, ACTIONS 79),
    (anon_sym_lambda, ACTIONS 85), (anon_sym_yield, ACTIONS 87), (sym_ellipsis, ACTIONS 89),
    (anon_sym___mlir_type, ACTIONS 91), (sym_integer, ACTIONS 93), (sym_float, ACTIONS 89),
    (anon_sym_await, ACTIONS 95), (sym_true, ACTIONS 93), (sym_false, ACTIONS 93),
    (sym_none, ACTIONS 93), (sym_comment, ACTIONS 3), (sym_line_continuation, ACTIONS 3),
    (sym__dedent, ACTIONS 129), (sym_string_start, ACTIONS 97)]"

definition parse_table_73 :: "(nat \<times> nat) list" where "parse_table_73 = [
    (sym__statement, STATE 925), (sym__simple_statements, STATE 925),
    (sym_import_statement, STATE 11814), (sym_future_import_statement, STATE 11814),
    (sym_import_from_statement, STATE 11814), (sym_print_statement, STATE 11814),
    (sym_assert_statement, STATE 11814), (sym_comptime_assert_statement, STATE 11814),
    (sym_expression_statement, STATE 11814), (sym_tuple_expression, STATE 12425),
    (sym_named_expression, STATE 7969), (sym__named_expression_lhs, STATE 12752),
    (sym_return_statement, STATE 11814), (sym_delete_statement, STATE 11814),
    (sym_raise_statement, STATE 11814), (sym_pass_statement, STATE 11814),
    (sym_break_statement, STATE 11814), (sym_continue_statement, STATE 11814),
    (sym_extension_definition, STATE 925), (sym_mlir_region, STATE 925),
    (sym_comptime_statement, STATE 925), (sym_if_statement, STATE 925),
    (sym_match_statement, STATE 925), (sym_for_statement, STATE 925),
    (sym_while_statement, STATE 925), (sym_try_statement, STATE 925),
    (sym_with_statement, STATE 925), (sym_function_definition, STATE 925),
    (sym_global_statement, STATE 11814), (sym_nonlocal_statement, STATE 11814),
    (sym_exec_statement, STATE 11814), (sym_type_alias_statement, STATE 11814),
    (sym_parameterized_alias_statement, STATE 11814), (sym_class_definition, STATE 925),
    (sym_trait_definition, STATE 925), (sym_decorated_definition, STATE 925),
    (sym_decorator, STATE 3670), (sym_block, STATE 6211), (sym_pattern, STATE 8086),
    (sym_tuple_pattern, STATE 8101), (sym_list_pattern, STATE 8101),
    (sym_list_splat_pattern, STATE 6819), (sym_as_pattern, STATE 7969),
    (sym_expression, STATE 9883), (sym_primary_expression, STATE 7326),
    (sym_comptime_expression, STATE 7017), (sym_transfer_expression, STATE 7017),
    (sym_not_operator, STATE 7969), (sym_boolean_operator, STATE 7969),
    (sym_binary_operator, STATE 7017), (sym_unary_operator, STATE 7017),
    (sym_comparison_operator, STATE 7969), (sym_lambda, STATE 7969),
    (sym_assignment, STATE 12425), (sym_augmented_assignment, STATE 12425),
    (sym_pattern_list, STATE 8578), (sym_yield, STATE 12425), (sym_attribute, STATE 6836),
    (sym_subscript, STATE 6838), (sym_call, STATE 6845), (sym_mlir_type, STATE 7017),
    (sym_list, STATE 7017), (sym_set, STATE 7017), (sym_tuple, STATE 7017),
    (sym_dictionary, STATE 7017), (sym_struct_literal, STATE 7017),
    (sym_list_comprehension, STATE 7017), (sym_dictionary_comprehension, STATE 7017),
    (sym_set_comprehension, STATE 7017), (sym_generator_expression, STATE 7017),
    (sym_parenthesized_expression, STATE 7017), (sym_conditional_expression, STATE 7969),
    (sym_concatenated_string, STATE 7017), (sym_string, STATE 6751), (sym_await, STATE 7017),
    (aux_sym_module_repeat1, STATE 925), (aux_sym_decorated_definition_repeat1, STATE 3670),
    (sym_identifier, ACTIONS 9), (anon_sym_import, ACTIONS 11), (anon_sym_from, ACTIONS 13),
    (anon_sym_LPAREN, ACTIONS 15), (anon_sym_STAR, ACTIONS 17), (anon_sym_print, ACTIONS 19),
    (anon_sym_comptime, ACTIONS 99), (anon_sym_assert, ACTIONS 23),
    (anon_sym___comptime_assert, ACTIONS 25), (anon_sym_return, ACTIONS 27),
    (anon_sym_del, ACTIONS 29), (anon_sym_raise, ACTIONS 31), (anon_sym_pass, ACTIONS 33),
    (anon_sym_break, ACTIONS 35), (anon_sym_continue, ACTIONS 37),
    (anon_sym___extension, ACTIONS 101), (anon_sym___mlir_region, ACTIONS 103),
    (anon_sym_if, ACTIONS 105), (anon_sym_match, ACTIONS 107), (anon_sym_async, ACTIONS 109),
    (anon_sym_for, ACTIONS 111), (anon_sym_while, ACTIONS 113), (anon_sym_try, ACTIONS 115),
    (anon_sym_with, ACTIONS 117), (anon_sym_def, ACTIONS 119), (anon_sym_fn, ACTIONS 119),
    (anon_sym_LBRACK, ACTIONS 59), (anon_sym_LBRACE, ACTIONS 61), (anon_sym_global, ACTIONS 63),
    (anon_sym_nonlocal, ACTIONS 65), (anon_sym_exec, ACTIONS 67), (anon_sym_type, ACTIONS 69),
    (anon_sym_class, ACTIONS 121), (anon_sym_struct, ACTIONS 121), (anon_sym_mut, ACTIONS 73),
    (anon_sym_out, ACTIONS 73), (anon_sym_trait, ACTIONS 123), (anon_sym_AT, ACTIONS 77),
    (anon_sym_DASH, ACTIONS 79), (anon_sym_PLUS, ACTIONS 79), (anon_sym_ref, ACTIONS 81),
    (anon_sym_var, ACTIONS 81), (anon_sym_not, ACTIONS 83), (anon_sym_TILDE, ACTIONS 79),
    (anon_sym_lambda, ACTIONS 85), (anon_sym_yield, ACTIONS 87), (sym_ellipsis, ACTIONS 89),
    (anon_sym___mlir_type, ACTIONS 91), (sym_integer, ACTIONS 93), (sym_float, ACTIONS 89),
    (anon_sym_await, ACTIONS 95), (sym_true, ACTIONS 93), (sym_false, ACTIONS 93),
    (sym_none, ACTIONS 93), (sym_comment, ACTIONS 3), (sym_line_continuation, ACTIONS 3),
    (sym__dedent, ACTIONS 129), (sym_string_start, ACTIONS 97)]"

definition parse_table_74 :: "(nat \<times> nat) list" where "parse_table_74 = [
    (sym__statement, STATE 925), (sym__simple_statements, STATE 925),
    (sym_import_statement, STATE 11814), (sym_future_import_statement, STATE 11814),
    (sym_import_from_statement, STATE 11814), (sym_print_statement, STATE 11814),
    (sym_assert_statement, STATE 11814), (sym_comptime_assert_statement, STATE 11814),
    (sym_expression_statement, STATE 11814), (sym_tuple_expression, STATE 12425),
    (sym_named_expression, STATE 7969), (sym__named_expression_lhs, STATE 12752),
    (sym_return_statement, STATE 11814), (sym_delete_statement, STATE 11814),
    (sym_raise_statement, STATE 11814), (sym_pass_statement, STATE 11814),
    (sym_break_statement, STATE 11814), (sym_continue_statement, STATE 11814),
    (sym_extension_definition, STATE 925), (sym_mlir_region, STATE 925),
    (sym_comptime_statement, STATE 925), (sym_if_statement, STATE 925),
    (sym_match_statement, STATE 925), (sym_for_statement, STATE 925),
    (sym_while_statement, STATE 925), (sym_try_statement, STATE 925),
    (sym_with_statement, STATE 925), (sym_function_definition, STATE 925),
    (sym_global_statement, STATE 11814), (sym_nonlocal_statement, STATE 11814),
    (sym_exec_statement, STATE 11814), (sym_type_alias_statement, STATE 11814),
    (sym_parameterized_alias_statement, STATE 11814), (sym_class_definition, STATE 925),
    (sym_trait_definition, STATE 925), (sym_decorated_definition, STATE 925),
    (sym_decorator, STATE 3670), (sym_block, STATE 6221), (sym_pattern, STATE 8086),
    (sym_tuple_pattern, STATE 8101), (sym_list_pattern, STATE 8101),
    (sym_list_splat_pattern, STATE 6819), (sym_as_pattern, STATE 7969),
    (sym_expression, STATE 9883), (sym_primary_expression, STATE 7326),
    (sym_comptime_expression, STATE 7017), (sym_transfer_expression, STATE 7017),
    (sym_not_operator, STATE 7969), (sym_boolean_operator, STATE 7969),
    (sym_binary_operator, STATE 7017), (sym_unary_operator, STATE 7017),
    (sym_comparison_operator, STATE 7969), (sym_lambda, STATE 7969),
    (sym_assignment, STATE 12425), (sym_augmented_assignment, STATE 12425),
    (sym_pattern_list, STATE 8578), (sym_yield, STATE 12425), (sym_attribute, STATE 6836),
    (sym_subscript, STATE 6838), (sym_call, STATE 6845), (sym_mlir_type, STATE 7017),
    (sym_list, STATE 7017), (sym_set, STATE 7017), (sym_tuple, STATE 7017),
    (sym_dictionary, STATE 7017), (sym_struct_literal, STATE 7017),
    (sym_list_comprehension, STATE 7017), (sym_dictionary_comprehension, STATE 7017),
    (sym_set_comprehension, STATE 7017), (sym_generator_expression, STATE 7017),
    (sym_parenthesized_expression, STATE 7017), (sym_conditional_expression, STATE 7969),
    (sym_concatenated_string, STATE 7017), (sym_string, STATE 6751), (sym_await, STATE 7017),
    (aux_sym_module_repeat1, STATE 925), (aux_sym_decorated_definition_repeat1, STATE 3670),
    (sym_identifier, ACTIONS 9), (anon_sym_import, ACTIONS 11), (anon_sym_from, ACTIONS 13),
    (anon_sym_LPAREN, ACTIONS 15), (anon_sym_STAR, ACTIONS 17), (anon_sym_print, ACTIONS 19),
    (anon_sym_comptime, ACTIONS 99), (anon_sym_assert, ACTIONS 23),
    (anon_sym___comptime_assert, ACTIONS 25), (anon_sym_return, ACTIONS 27),
    (anon_sym_del, ACTIONS 29), (anon_sym_raise, ACTIONS 31), (anon_sym_pass, ACTIONS 33),
    (anon_sym_break, ACTIONS 35), (anon_sym_continue, ACTIONS 37),
    (anon_sym___extension, ACTIONS 101), (anon_sym___mlir_region, ACTIONS 103),
    (anon_sym_if, ACTIONS 105), (anon_sym_match, ACTIONS 107), (anon_sym_async, ACTIONS 109),
    (anon_sym_for, ACTIONS 111), (anon_sym_while, ACTIONS 113), (anon_sym_try, ACTIONS 115),
    (anon_sym_with, ACTIONS 117), (anon_sym_def, ACTIONS 119), (anon_sym_fn, ACTIONS 119),
    (anon_sym_LBRACK, ACTIONS 59), (anon_sym_LBRACE, ACTIONS 61), (anon_sym_global, ACTIONS 63),
    (anon_sym_nonlocal, ACTIONS 65), (anon_sym_exec, ACTIONS 67), (anon_sym_type, ACTIONS 69),
    (anon_sym_class, ACTIONS 121), (anon_sym_struct, ACTIONS 121), (anon_sym_mut, ACTIONS 73),
    (anon_sym_out, ACTIONS 73), (anon_sym_trait, ACTIONS 123), (anon_sym_AT, ACTIONS 77),
    (anon_sym_DASH, ACTIONS 79), (anon_sym_PLUS, ACTIONS 79), (anon_sym_ref, ACTIONS 81),
    (anon_sym_var, ACTIONS 81), (anon_sym_not, ACTIONS 83), (anon_sym_TILDE, ACTIONS 79),
    (anon_sym_lambda, ACTIONS 85), (anon_sym_yield, ACTIONS 87), (sym_ellipsis, ACTIONS 89),
    (anon_sym___mlir_type, ACTIONS 91), (sym_integer, ACTIONS 93), (sym_float, ACTIONS 89),
    (anon_sym_await, ACTIONS 95), (sym_true, ACTIONS 93), (sym_false, ACTIONS 93),
    (sym_none, ACTIONS 93), (sym_comment, ACTIONS 3), (sym_line_continuation, ACTIONS 3),
    (sym__dedent, ACTIONS 129), (sym_string_start, ACTIONS 97)]"

definition parse_table_75 :: "(nat \<times> nat) list" where "parse_table_75 = [
    (sym__statement, STATE 925), (sym__simple_statements, STATE 925),
    (sym_import_statement, STATE 11814), (sym_future_import_statement, STATE 11814),
    (sym_import_from_statement, STATE 11814), (sym_print_statement, STATE 11814),
    (sym_assert_statement, STATE 11814), (sym_comptime_assert_statement, STATE 11814),
    (sym_expression_statement, STATE 11814), (sym_tuple_expression, STATE 12425),
    (sym_named_expression, STATE 7969), (sym__named_expression_lhs, STATE 12752),
    (sym_return_statement, STATE 11814), (sym_delete_statement, STATE 11814),
    (sym_raise_statement, STATE 11814), (sym_pass_statement, STATE 11814),
    (sym_break_statement, STATE 11814), (sym_continue_statement, STATE 11814),
    (sym_extension_definition, STATE 925), (sym_mlir_region, STATE 925),
    (sym_comptime_statement, STATE 925), (sym_if_statement, STATE 925),
    (sym_match_statement, STATE 925), (sym_for_statement, STATE 925),
    (sym_while_statement, STATE 925), (sym_try_statement, STATE 925),
    (sym_with_statement, STATE 925), (sym_function_definition, STATE 925),
    (sym_global_statement, STATE 11814), (sym_nonlocal_statement, STATE 11814),
    (sym_exec_statement, STATE 11814), (sym_type_alias_statement, STATE 11814),
    (sym_parameterized_alias_statement, STATE 11814), (sym_class_definition, STATE 925),
    (sym_trait_definition, STATE 925), (sym_decorated_definition, STATE 925),
    (sym_decorator, STATE 3670), (sym_block, STATE 4151), (sym_pattern, STATE 8086),
    (sym_tuple_pattern, STATE 8101), (sym_list_pattern, STATE 8101),
    (sym_list_splat_pattern, STATE 6819), (sym_as_pattern, STATE 7969),
    (sym_expression, STATE 9883), (sym_primary_expression, STATE 7326),
    (sym_comptime_expression, STATE 7017), (sym_transfer_expression, STATE 7017),
    (sym_not_operator, STATE 7969), (sym_boolean_operator, STATE 7969),
    (sym_binary_operator, STATE 7017), (sym_unary_operator, STATE 7017),
    (sym_comparison_operator, STATE 7969), (sym_lambda, STATE 7969),
    (sym_assignment, STATE 12425), (sym_augmented_assignment, STATE 12425),
    (sym_pattern_list, STATE 8578), (sym_yield, STATE 12425), (sym_attribute, STATE 6836),
    (sym_subscript, STATE 6838), (sym_call, STATE 6845), (sym_mlir_type, STATE 7017),
    (sym_list, STATE 7017), (sym_set, STATE 7017), (sym_tuple, STATE 7017),
    (sym_dictionary, STATE 7017), (sym_struct_literal, STATE 7017),
    (sym_list_comprehension, STATE 7017), (sym_dictionary_comprehension, STATE 7017),
    (sym_set_comprehension, STATE 7017), (sym_generator_expression, STATE 7017),
    (sym_parenthesized_expression, STATE 7017), (sym_conditional_expression, STATE 7969),
    (sym_concatenated_string, STATE 7017), (sym_string, STATE 6751), (sym_await, STATE 7017),
    (aux_sym_module_repeat1, STATE 925), (aux_sym_decorated_definition_repeat1, STATE 3670),
    (sym_identifier, ACTIONS 9), (anon_sym_import, ACTIONS 11), (anon_sym_from, ACTIONS 13),
    (anon_sym_LPAREN, ACTIONS 15), (anon_sym_STAR, ACTIONS 17), (anon_sym_print, ACTIONS 19),
    (anon_sym_comptime, ACTIONS 99), (anon_sym_assert, ACTIONS 23),
    (anon_sym___comptime_assert, ACTIONS 25), (anon_sym_return, ACTIONS 27),
    (anon_sym_del, ACTIONS 29), (anon_sym_raise, ACTIONS 31), (anon_sym_pass, ACTIONS 33),
    (anon_sym_break, ACTIONS 35), (anon_sym_continue, ACTIONS 37),
    (anon_sym___extension, ACTIONS 101), (anon_sym___mlir_region, ACTIONS 103),
    (anon_sym_if, ACTIONS 105), (anon_sym_match, ACTIONS 107), (anon_sym_async, ACTIONS 109),
    (anon_sym_for, ACTIONS 111), (anon_sym_while, ACTIONS 113), (anon_sym_try, ACTIONS 115),
    (anon_sym_with, ACTIONS 117), (anon_sym_def, ACTIONS 119), (anon_sym_fn, ACTIONS 119),
    (anon_sym_LBRACK, ACTIONS 59), (anon_sym_LBRACE, ACTIONS 61), (anon_sym_global, ACTIONS 63),
    (anon_sym_nonlocal, ACTIONS 65), (anon_sym_exec, ACTIONS 67), (anon_sym_type, ACTIONS 69),
    (anon_sym_class, ACTIONS 121), (anon_sym_struct, ACTIONS 121), (anon_sym_mut, ACTIONS 73),
    (anon_sym_out, ACTIONS 73), (anon_sym_trait, ACTIONS 123), (anon_sym_AT, ACTIONS 77),
    (anon_sym_DASH, ACTIONS 79), (anon_sym_PLUS, ACTIONS 79), (anon_sym_ref, ACTIONS 81),
    (anon_sym_var, ACTIONS 81), (anon_sym_not, ACTIONS 83), (anon_sym_TILDE, ACTIONS 79),
    (anon_sym_lambda, ACTIONS 85), (anon_sym_yield, ACTIONS 87), (sym_ellipsis, ACTIONS 89),
    (anon_sym___mlir_type, ACTIONS 91), (sym_integer, ACTIONS 93), (sym_float, ACTIONS 89),
    (anon_sym_await, ACTIONS 95), (sym_true, ACTIONS 93), (sym_false, ACTIONS 93),
    (sym_none, ACTIONS 93), (sym_comment, ACTIONS 3), (sym_line_continuation, ACTIONS 3),
    (sym__dedent, ACTIONS 129), (sym_string_start, ACTIONS 97)]"

definition parse_table_76 :: "(nat \<times> nat) list" where "parse_table_76 = [
    (sym__statement, STATE 926), (sym__simple_statements, STATE 926),
    (sym_import_statement, STATE 11814), (sym_future_import_statement, STATE 11814),
    (sym_import_from_statement, STATE 11814), (sym_print_statement, STATE 11814),
    (sym_assert_statement, STATE 11814), (sym_comptime_assert_statement, STATE 11814),
    (sym_expression_statement, STATE 11814), (sym_tuple_expression, STATE 12425),
    (sym_named_expression, STATE 7969), (sym__named_expression_lhs, STATE 12752),
    (sym_return_statement, STATE 11814), (sym_delete_statement, STATE 11814),
    (sym_raise_statement, STATE 11814), (sym_pass_statement, STATE 11814),
    (sym_break_statement, STATE 11814), (sym_continue_statement, STATE 11814),
    (sym_extension_definition, STATE 926), (sym_mlir_region, STATE 926),
    (sym_comptime_statement, STATE 926), (sym_if_statement, STATE 926),
    (sym_match_statement, STATE 926), (sym_for_statement, STATE 926),
    (sym_while_statement, STATE 926), (sym_try_statement, STATE 926),
    (sym_with_statement, STATE 926), (sym_function_definition, STATE 926),
    (sym_global_statement, STATE 11814), (sym_nonlocal_statement, STATE 11814),
    (sym_exec_statement, STATE 11814), (sym_type_alias_statement, STATE 11814),
    (sym_parameterized_alias_statement, STATE 11814), (sym_class_definition, STATE 926),
    (sym_trait_definition, STATE 926), (sym_decorated_definition, STATE 926),
    (sym_decorator, STATE 3670), (sym_block, STATE 4203), (sym_pattern, STATE 8086),
    (sym_tuple_pattern, STATE 8101), (sym_list_pattern, STATE 8101),
    (sym_list_splat_pattern, STATE 6819), (sym_as_pattern, STATE 7969),
    (sym_expression, STATE 9883), (sym_primary_expression, STATE 7326),
    (sym_comptime_expression, STATE 7017), (sym_transfer_expression, STATE 7017),
    (sym_not_operator, STATE 7969), (sym_boolean_operator, STATE 7969),
    (sym_binary_operator, STATE 7017), (sym_unary_operator, STATE 7017),
    (sym_comparison_operator, STATE 7969), (sym_lambda, STATE 7969),
    (sym_assignment, STATE 12425), (sym_augmented_assignment, STATE 12425),
    (sym_pattern_list, STATE 8578), (sym_yield, STATE 12425), (sym_attribute, STATE 6836),
    (sym_subscript, STATE 6838), (sym_call, STATE 6845), (sym_mlir_type, STATE 7017),
    (sym_list, STATE 7017), (sym_set, STATE 7017), (sym_tuple, STATE 7017),
    (sym_dictionary, STATE 7017), (sym_struct_literal, STATE 7017),
    (sym_list_comprehension, STATE 7017), (sym_dictionary_comprehension, STATE 7017),
    (sym_set_comprehension, STATE 7017), (sym_generator_expression, STATE 7017),
    (sym_parenthesized_expression, STATE 7017), (sym_conditional_expression, STATE 7969),
    (sym_concatenated_string, STATE 7017), (sym_string, STATE 6751), (sym_await, STATE 7017),
    (aux_sym_module_repeat1, STATE 926), (aux_sym_decorated_definition_repeat1, STATE 3670),
    (sym_identifier, ACTIONS 9), (anon_sym_import, ACTIONS 11), (anon_sym_from, ACTIONS 13),
    (anon_sym_LPAREN, ACTIONS 15), (anon_sym_STAR, ACTIONS 17), (anon_sym_print, ACTIONS 19),
    (anon_sym_comptime, ACTIONS 99), (anon_sym_assert, ACTIONS 23),
    (anon_sym___comptime_assert, ACTIONS 25), (anon_sym_return, ACTIONS 27),
    (anon_sym_del, ACTIONS 29), (anon_sym_raise, ACTIONS 31), (anon_sym_pass, ACTIONS 33),
    (anon_sym_break, ACTIONS 35), (anon_sym_continue, ACTIONS 37),
    (anon_sym___extension, ACTIONS 101), (anon_sym___mlir_region, ACTIONS 103),
    (anon_sym_if, ACTIONS 105), (anon_sym_match, ACTIONS 107), (anon_sym_async, ACTIONS 109),
    (anon_sym_for, ACTIONS 111), (anon_sym_while, ACTIONS 113), (anon_sym_try, ACTIONS 115),
    (anon_sym_with, ACTIONS 117), (anon_sym_def, ACTIONS 119), (anon_sym_fn, ACTIONS 119),
    (anon_sym_LBRACK, ACTIONS 59), (anon_sym_LBRACE, ACTIONS 61), (anon_sym_global, ACTIONS 63),
    (anon_sym_nonlocal, ACTIONS 65), (anon_sym_exec, ACTIONS 67), (anon_sym_type, ACTIONS 69),
    (anon_sym_class, ACTIONS 121), (anon_sym_struct, ACTIONS 121), (anon_sym_mut, ACTIONS 73),
    (anon_sym_out, ACTIONS 73), (anon_sym_trait, ACTIONS 123), (anon_sym_AT, ACTIONS 77),
    (anon_sym_DASH, ACTIONS 79), (anon_sym_PLUS, ACTIONS 79), (anon_sym_ref, ACTIONS 81),
    (anon_sym_var, ACTIONS 81), (anon_sym_not, ACTIONS 83), (anon_sym_TILDE, ACTIONS 79),
    (anon_sym_lambda, ACTIONS 85), (anon_sym_yield, ACTIONS 87), (sym_ellipsis, ACTIONS 89),
    (anon_sym___mlir_type, ACTIONS 91), (sym_integer, ACTIONS 93), (sym_float, ACTIONS 89),
    (anon_sym_await, ACTIONS 95), (sym_true, ACTIONS 93), (sym_false, ACTIONS 93),
    (sym_none, ACTIONS 93), (sym_comment, ACTIONS 3), (sym_line_continuation, ACTIONS 3),
    (sym__dedent, ACTIONS 131), (sym_string_start, ACTIONS 97)]"

definition parse_table_77 :: "(nat \<times> nat) list" where "parse_table_77 = [
    (sym__statement, STATE 925), (sym__simple_statements, STATE 925),
    (sym_import_statement, STATE 11814), (sym_future_import_statement, STATE 11814),
    (sym_import_from_statement, STATE 11814), (sym_print_statement, STATE 11814),
    (sym_assert_statement, STATE 11814), (sym_comptime_assert_statement, STATE 11814),
    (sym_expression_statement, STATE 11814), (sym_tuple_expression, STATE 12425),
    (sym_named_expression, STATE 7969), (sym__named_expression_lhs, STATE 12752),
    (sym_return_statement, STATE 11814), (sym_delete_statement, STATE 11814),
    (sym_raise_statement, STATE 11814), (sym_pass_statement, STATE 11814),
    (sym_break_statement, STATE 11814), (sym_continue_statement, STATE 11814),
    (sym_extension_definition, STATE 925), (sym_mlir_region, STATE 925),
    (sym_comptime_statement, STATE 925), (sym_if_statement, STATE 925),
    (sym_match_statement, STATE 925), (sym_for_statement, STATE 925),
    (sym_while_statement, STATE 925), (sym_try_statement, STATE 925),
    (sym_with_statement, STATE 925), (sym_function_definition, STATE 925),
    (sym_global_statement, STATE 11814), (sym_nonlocal_statement, STATE 11814),
    (sym_exec_statement, STATE 11814), (sym_type_alias_statement, STATE 11814),
    (sym_parameterized_alias_statement, STATE 11814), (sym_class_definition, STATE 925),
    (sym_trait_definition, STATE 925), (sym_decorated_definition, STATE 925),
    (sym_decorator, STATE 3670), (sym_block, STATE 6302), (sym_pattern, STATE 8086),
    (sym_tuple_pattern, STATE 8101), (sym_list_pattern, STATE 8101),
    (sym_list_splat_pattern, STATE 6819), (sym_as_pattern, STATE 7969),
    (sym_expression, STATE 9883), (sym_primary_expression, STATE 7326),
    (sym_comptime_expression, STATE 7017), (sym_transfer_expression, STATE 7017),
    (sym_not_operator, STATE 7969), (sym_boolean_operator, STATE 7969),
    (sym_binary_operator, STATE 7017), (sym_unary_operator, STATE 7017),
    (sym_comparison_operator, STATE 7969), (sym_lambda, STATE 7969),
    (sym_assignment, STATE 12425), (sym_augmented_assignment, STATE 12425),
    (sym_pattern_list, STATE 8578), (sym_yield, STATE 12425), (sym_attribute, STATE 6836),
    (sym_subscript, STATE 6838), (sym_call, STATE 6845), (sym_mlir_type, STATE 7017),
    (sym_list, STATE 7017), (sym_set, STATE 7017), (sym_tuple, STATE 7017),
    (sym_dictionary, STATE 7017), (sym_struct_literal, STATE 7017),
    (sym_list_comprehension, STATE 7017), (sym_dictionary_comprehension, STATE 7017),
    (sym_set_comprehension, STATE 7017), (sym_generator_expression, STATE 7017),
    (sym_parenthesized_expression, STATE 7017), (sym_conditional_expression, STATE 7969),
    (sym_concatenated_string, STATE 7017), (sym_string, STATE 6751), (sym_await, STATE 7017),
    (aux_sym_module_repeat1, STATE 925), (aux_sym_decorated_definition_repeat1, STATE 3670),
    (sym_identifier, ACTIONS 9), (anon_sym_import, ACTIONS 11), (anon_sym_from, ACTIONS 13),
    (anon_sym_LPAREN, ACTIONS 15), (anon_sym_STAR, ACTIONS 17), (anon_sym_print, ACTIONS 19),
    (anon_sym_comptime, ACTIONS 99), (anon_sym_assert, ACTIONS 23),
    (anon_sym___comptime_assert, ACTIONS 25), (anon_sym_return, ACTIONS 27),
    (anon_sym_del, ACTIONS 29), (anon_sym_raise, ACTIONS 31), (anon_sym_pass, ACTIONS 33),
    (anon_sym_break, ACTIONS 35), (anon_sym_continue, ACTIONS 37),
    (anon_sym___extension, ACTIONS 101), (anon_sym___mlir_region, ACTIONS 103),
    (anon_sym_if, ACTIONS 105), (anon_sym_match, ACTIONS 107), (anon_sym_async, ACTIONS 109),
    (anon_sym_for, ACTIONS 111), (anon_sym_while, ACTIONS 113), (anon_sym_try, ACTIONS 115),
    (anon_sym_with, ACTIONS 117), (anon_sym_def, ACTIONS 119), (anon_sym_fn, ACTIONS 119),
    (anon_sym_LBRACK, ACTIONS 59), (anon_sym_LBRACE, ACTIONS 61), (anon_sym_global, ACTIONS 63),
    (anon_sym_nonlocal, ACTIONS 65), (anon_sym_exec, ACTIONS 67), (anon_sym_type, ACTIONS 69),
    (anon_sym_class, ACTIONS 121), (anon_sym_struct, ACTIONS 121), (anon_sym_mut, ACTIONS 73),
    (anon_sym_out, ACTIONS 73), (anon_sym_trait, ACTIONS 123), (anon_sym_AT, ACTIONS 77),
    (anon_sym_DASH, ACTIONS 79), (anon_sym_PLUS, ACTIONS 79), (anon_sym_ref, ACTIONS 81),
    (anon_sym_var, ACTIONS 81), (anon_sym_not, ACTIONS 83), (anon_sym_TILDE, ACTIONS 79),
    (anon_sym_lambda, ACTIONS 85), (anon_sym_yield, ACTIONS 87), (sym_ellipsis, ACTIONS 89),
    (anon_sym___mlir_type, ACTIONS 91), (sym_integer, ACTIONS 93), (sym_float, ACTIONS 89),
    (anon_sym_await, ACTIONS 95), (sym_true, ACTIONS 93), (sym_false, ACTIONS 93),
    (sym_none, ACTIONS 93), (sym_comment, ACTIONS 3), (sym_line_continuation, ACTIONS 3),
    (sym__dedent, ACTIONS 129), (sym_string_start, ACTIONS 97)]"

definition parse_table_78 :: "(nat \<times> nat) list" where "parse_table_78 = [
    (sym__statement, STATE 925), (sym__simple_statements, STATE 925),
    (sym_import_statement, STATE 11814), (sym_future_import_statement, STATE 11814),
    (sym_import_from_statement, STATE 11814), (sym_print_statement, STATE 11814),
    (sym_assert_statement, STATE 11814), (sym_comptime_assert_statement, STATE 11814),
    (sym_expression_statement, STATE 11814), (sym_tuple_expression, STATE 12425),
    (sym_named_expression, STATE 7969), (sym__named_expression_lhs, STATE 12752),
    (sym_return_statement, STATE 11814), (sym_delete_statement, STATE 11814),
    (sym_raise_statement, STATE 11814), (sym_pass_statement, STATE 11814),
    (sym_break_statement, STATE 11814), (sym_continue_statement, STATE 11814),
    (sym_extension_definition, STATE 925), (sym_mlir_region, STATE 925),
    (sym_comptime_statement, STATE 925), (sym_if_statement, STATE 925),
    (sym_match_statement, STATE 925), (sym_for_statement, STATE 925),
    (sym_while_statement, STATE 925), (sym_try_statement, STATE 925),
    (sym_with_statement, STATE 925), (sym_function_definition, STATE 925),
    (sym_global_statement, STATE 11814), (sym_nonlocal_statement, STATE 11814),
    (sym_exec_statement, STATE 11814), (sym_type_alias_statement, STATE 11814),
    (sym_parameterized_alias_statement, STATE 11814), (sym_class_definition, STATE 925),
    (sym_trait_definition, STATE 925), (sym_decorated_definition, STATE 925),
    (sym_decorator, STATE 3670), (sym_block, STATE 6557), (sym_pattern, STATE 8086),
    (sym_tuple_pattern, STATE 8101), (sym_list_pattern, STATE 8101),
    (sym_list_splat_pattern, STATE 6819), (sym_as_pattern, STATE 7969),
    (sym_expression, STATE 9883), (sym_primary_expression, STATE 7326),
    (sym_comptime_expression, STATE 7017), (sym_transfer_expression, STATE 7017),
    (sym_not_operator, STATE 7969), (sym_boolean_operator, STATE 7969),
    (sym_binary_operator, STATE 7017), (sym_unary_operator, STATE 7017),
    (sym_comparison_operator, STATE 7969), (sym_lambda, STATE 7969),
    (sym_assignment, STATE 12425), (sym_augmented_assignment, STATE 12425),
    (sym_pattern_list, STATE 8578), (sym_yield, STATE 12425), (sym_attribute, STATE 6836),
    (sym_subscript, STATE 6838), (sym_call, STATE 6845), (sym_mlir_type, STATE 7017),
    (sym_list, STATE 7017), (sym_set, STATE 7017), (sym_tuple, STATE 7017),
    (sym_dictionary, STATE 7017), (sym_struct_literal, STATE 7017),
    (sym_list_comprehension, STATE 7017), (sym_dictionary_comprehension, STATE 7017),
    (sym_set_comprehension, STATE 7017), (sym_generator_expression, STATE 7017),
    (sym_parenthesized_expression, STATE 7017), (sym_conditional_expression, STATE 7969),
    (sym_concatenated_string, STATE 7017), (sym_string, STATE 6751), (sym_await, STATE 7017),
    (aux_sym_module_repeat1, STATE 925), (aux_sym_decorated_definition_repeat1, STATE 3670),
    (sym_identifier, ACTIONS 9), (anon_sym_import, ACTIONS 11), (anon_sym_from, ACTIONS 13),
    (anon_sym_LPAREN, ACTIONS 15), (anon_sym_STAR, ACTIONS 17), (anon_sym_print, ACTIONS 19),
    (anon_sym_comptime, ACTIONS 99), (anon_sym_assert, ACTIONS 23),
    (anon_sym___comptime_assert, ACTIONS 25), (anon_sym_return, ACTIONS 27),
    (anon_sym_del, ACTIONS 29), (anon_sym_raise, ACTIONS 31), (anon_sym_pass, ACTIONS 33),
    (anon_sym_break, ACTIONS 35), (anon_sym_continue, ACTIONS 37),
    (anon_sym___extension, ACTIONS 101), (anon_sym___mlir_region, ACTIONS 103),
    (anon_sym_if, ACTIONS 105), (anon_sym_match, ACTIONS 107), (anon_sym_async, ACTIONS 109),
    (anon_sym_for, ACTIONS 111), (anon_sym_while, ACTIONS 113), (anon_sym_try, ACTIONS 115),
    (anon_sym_with, ACTIONS 117), (anon_sym_def, ACTIONS 119), (anon_sym_fn, ACTIONS 119),
    (anon_sym_LBRACK, ACTIONS 59), (anon_sym_LBRACE, ACTIONS 61), (anon_sym_global, ACTIONS 63),
    (anon_sym_nonlocal, ACTIONS 65), (anon_sym_exec, ACTIONS 67), (anon_sym_type, ACTIONS 69),
    (anon_sym_class, ACTIONS 121), (anon_sym_struct, ACTIONS 121), (anon_sym_mut, ACTIONS 73),
    (anon_sym_out, ACTIONS 73), (anon_sym_trait, ACTIONS 123), (anon_sym_AT, ACTIONS 77),
    (anon_sym_DASH, ACTIONS 79), (anon_sym_PLUS, ACTIONS 79), (anon_sym_ref, ACTIONS 81),
    (anon_sym_var, ACTIONS 81), (anon_sym_not, ACTIONS 83), (anon_sym_TILDE, ACTIONS 79),
    (anon_sym_lambda, ACTIONS 85), (anon_sym_yield, ACTIONS 87), (sym_ellipsis, ACTIONS 89),
    (anon_sym___mlir_type, ACTIONS 91), (sym_integer, ACTIONS 93), (sym_float, ACTIONS 89),
    (anon_sym_await, ACTIONS 95), (sym_true, ACTIONS 93), (sym_false, ACTIONS 93),
    (sym_none, ACTIONS 93), (sym_comment, ACTIONS 3), (sym_line_continuation, ACTIONS 3),
    (sym__dedent, ACTIONS 129), (sym_string_start, ACTIONS 97)]"

definition parse_table_79 :: "(nat \<times> nat) list" where "parse_table_79 = [
    (sym__statement, STATE 925), (sym__simple_statements, STATE 925),
    (sym_import_statement, STATE 11814), (sym_future_import_statement, STATE 11814),
    (sym_import_from_statement, STATE 11814), (sym_print_statement, STATE 11814),
    (sym_assert_statement, STATE 11814), (sym_comptime_assert_statement, STATE 11814),
    (sym_expression_statement, STATE 11814), (sym_tuple_expression, STATE 12425),
    (sym_named_expression, STATE 7969), (sym__named_expression_lhs, STATE 12752),
    (sym_return_statement, STATE 11814), (sym_delete_statement, STATE 11814),
    (sym_raise_statement, STATE 11814), (sym_pass_statement, STATE 11814),
    (sym_break_statement, STATE 11814), (sym_continue_statement, STATE 11814),
    (sym_extension_definition, STATE 925), (sym_mlir_region, STATE 925),
    (sym_comptime_statement, STATE 925), (sym_if_statement, STATE 925),
    (sym_match_statement, STATE 925), (sym_for_statement, STATE 925),
    (sym_while_statement, STATE 925), (sym_try_statement, STATE 925),
    (sym_with_statement, STATE 925), (sym_function_definition, STATE 925),
    (sym_global_statement, STATE 11814), (sym_nonlocal_statement, STATE 11814),
    (sym_exec_statement, STATE 11814), (sym_type_alias_statement, STATE 11814),
    (sym_parameterized_alias_statement, STATE 11814), (sym_class_definition, STATE 925),
    (sym_trait_definition, STATE 925), (sym_decorated_definition, STATE 925),
    (sym_decorator, STATE 3670), (sym_block, STATE 6565), (sym_pattern, STATE 8086),
    (sym_tuple_pattern, STATE 8101), (sym_list_pattern, STATE 8101),
    (sym_list_splat_pattern, STATE 6819), (sym_as_pattern, STATE 7969),
    (sym_expression, STATE 9883), (sym_primary_expression, STATE 7326),
    (sym_comptime_expression, STATE 7017), (sym_transfer_expression, STATE 7017),
    (sym_not_operator, STATE 7969), (sym_boolean_operator, STATE 7969),
    (sym_binary_operator, STATE 7017), (sym_unary_operator, STATE 7017),
    (sym_comparison_operator, STATE 7969), (sym_lambda, STATE 7969),
    (sym_assignment, STATE 12425), (sym_augmented_assignment, STATE 12425),
    (sym_pattern_list, STATE 8578), (sym_yield, STATE 12425), (sym_attribute, STATE 6836),
    (sym_subscript, STATE 6838), (sym_call, STATE 6845), (sym_mlir_type, STATE 7017),
    (sym_list, STATE 7017), (sym_set, STATE 7017), (sym_tuple, STATE 7017),
    (sym_dictionary, STATE 7017), (sym_struct_literal, STATE 7017),
    (sym_list_comprehension, STATE 7017), (sym_dictionary_comprehension, STATE 7017),
    (sym_set_comprehension, STATE 7017), (sym_generator_expression, STATE 7017),
    (sym_parenthesized_expression, STATE 7017), (sym_conditional_expression, STATE 7969),
    (sym_concatenated_string, STATE 7017), (sym_string, STATE 6751), (sym_await, STATE 7017),
    (aux_sym_module_repeat1, STATE 925), (aux_sym_decorated_definition_repeat1, STATE 3670),
    (sym_identifier, ACTIONS 9), (anon_sym_import, ACTIONS 11), (anon_sym_from, ACTIONS 13),
    (anon_sym_LPAREN, ACTIONS 15), (anon_sym_STAR, ACTIONS 17), (anon_sym_print, ACTIONS 19),
    (anon_sym_comptime, ACTIONS 99), (anon_sym_assert, ACTIONS 23),
    (anon_sym___comptime_assert, ACTIONS 25), (anon_sym_return, ACTIONS 27),
    (anon_sym_del, ACTIONS 29), (anon_sym_raise, ACTIONS 31), (anon_sym_pass, ACTIONS 33),
    (anon_sym_break, ACTIONS 35), (anon_sym_continue, ACTIONS 37),
    (anon_sym___extension, ACTIONS 101), (anon_sym___mlir_region, ACTIONS 103),
    (anon_sym_if, ACTIONS 105), (anon_sym_match, ACTIONS 107), (anon_sym_async, ACTIONS 109),
    (anon_sym_for, ACTIONS 111), (anon_sym_while, ACTIONS 113), (anon_sym_try, ACTIONS 115),
    (anon_sym_with, ACTIONS 117), (anon_sym_def, ACTIONS 119), (anon_sym_fn, ACTIONS 119),
    (anon_sym_LBRACK, ACTIONS 59), (anon_sym_LBRACE, ACTIONS 61), (anon_sym_global, ACTIONS 63),
    (anon_sym_nonlocal, ACTIONS 65), (anon_sym_exec, ACTIONS 67), (anon_sym_type, ACTIONS 69),
    (anon_sym_class, ACTIONS 121), (anon_sym_struct, ACTIONS 121), (anon_sym_mut, ACTIONS 73),
    (anon_sym_out, ACTIONS 73), (anon_sym_trait, ACTIONS 123), (anon_sym_AT, ACTIONS 77),
    (anon_sym_DASH, ACTIONS 79), (anon_sym_PLUS, ACTIONS 79), (anon_sym_ref, ACTIONS 81),
    (anon_sym_var, ACTIONS 81), (anon_sym_not, ACTIONS 83), (anon_sym_TILDE, ACTIONS 79),
    (anon_sym_lambda, ACTIONS 85), (anon_sym_yield, ACTIONS 87), (sym_ellipsis, ACTIONS 89),
    (anon_sym___mlir_type, ACTIONS 91), (sym_integer, ACTIONS 93), (sym_float, ACTIONS 89),
    (anon_sym_await, ACTIONS 95), (sym_true, ACTIONS 93), (sym_false, ACTIONS 93),
    (sym_none, ACTIONS 93), (sym_comment, ACTIONS 3), (sym_line_continuation, ACTIONS 3),
    (sym__dedent, ACTIONS 129), (sym_string_start, ACTIONS 97)]"

definition parse_table_80 :: "(nat \<times> nat) list" where "parse_table_80 = [
    (sym__statement, STATE 925), (sym__simple_statements, STATE 925),
    (sym_import_statement, STATE 11814), (sym_future_import_statement, STATE 11814),
    (sym_import_from_statement, STATE 11814), (sym_print_statement, STATE 11814),
    (sym_assert_statement, STATE 11814), (sym_comptime_assert_statement, STATE 11814),
    (sym_expression_statement, STATE 11814), (sym_tuple_expression, STATE 12425),
    (sym_named_expression, STATE 7969), (sym__named_expression_lhs, STATE 12752),
    (sym_return_statement, STATE 11814), (sym_delete_statement, STATE 11814),
    (sym_raise_statement, STATE 11814), (sym_pass_statement, STATE 11814),
    (sym_break_statement, STATE 11814), (sym_continue_statement, STATE 11814),
    (sym_extension_definition, STATE 925), (sym_mlir_region, STATE 925),
    (sym_comptime_statement, STATE 925), (sym_if_statement, STATE 925),
    (sym_match_statement, STATE 925), (sym_for_statement, STATE 925),
    (sym_while_statement, STATE 925), (sym_try_statement, STATE 925),
    (sym_with_statement, STATE 925), (sym_function_definition, STATE 925),
    (sym_global_statement, STATE 11814), (sym_nonlocal_statement, STATE 11814),
    (sym_exec_statement, STATE 11814), (sym_type_alias_statement, STATE 11814),
    (sym_parameterized_alias_statement, STATE 11814), (sym_class_definition, STATE 925),
    (sym_trait_definition, STATE 925), (sym_decorated_definition, STATE 925),
    (sym_decorator, STATE 3670), (sym_block, STATE 6584), (sym_pattern, STATE 8086),
    (sym_tuple_pattern, STATE 8101), (sym_list_pattern, STATE 8101),
    (sym_list_splat_pattern, STATE 6819), (sym_as_pattern, STATE 7969),
    (sym_expression, STATE 9883), (sym_primary_expression, STATE 7326),
    (sym_comptime_expression, STATE 7017), (sym_transfer_expression, STATE 7017),
    (sym_not_operator, STATE 7969), (sym_boolean_operator, STATE 7969),
    (sym_binary_operator, STATE 7017), (sym_unary_operator, STATE 7017),
    (sym_comparison_operator, STATE 7969), (sym_lambda, STATE 7969),
    (sym_assignment, STATE 12425), (sym_augmented_assignment, STATE 12425),
    (sym_pattern_list, STATE 8578), (sym_yield, STATE 12425), (sym_attribute, STATE 6836),
    (sym_subscript, STATE 6838), (sym_call, STATE 6845), (sym_mlir_type, STATE 7017),
    (sym_list, STATE 7017), (sym_set, STATE 7017), (sym_tuple, STATE 7017),
    (sym_dictionary, STATE 7017), (sym_struct_literal, STATE 7017),
    (sym_list_comprehension, STATE 7017), (sym_dictionary_comprehension, STATE 7017),
    (sym_set_comprehension, STATE 7017), (sym_generator_expression, STATE 7017),
    (sym_parenthesized_expression, STATE 7017), (sym_conditional_expression, STATE 7969),
    (sym_concatenated_string, STATE 7017), (sym_string, STATE 6751), (sym_await, STATE 7017),
    (aux_sym_module_repeat1, STATE 925), (aux_sym_decorated_definition_repeat1, STATE 3670),
    (sym_identifier, ACTIONS 9), (anon_sym_import, ACTIONS 11), (anon_sym_from, ACTIONS 13),
    (anon_sym_LPAREN, ACTIONS 15), (anon_sym_STAR, ACTIONS 17), (anon_sym_print, ACTIONS 19),
    (anon_sym_comptime, ACTIONS 99), (anon_sym_assert, ACTIONS 23),
    (anon_sym___comptime_assert, ACTIONS 25), (anon_sym_return, ACTIONS 27),
    (anon_sym_del, ACTIONS 29), (anon_sym_raise, ACTIONS 31), (anon_sym_pass, ACTIONS 33),
    (anon_sym_break, ACTIONS 35), (anon_sym_continue, ACTIONS 37),
    (anon_sym___extension, ACTIONS 101), (anon_sym___mlir_region, ACTIONS 103),
    (anon_sym_if, ACTIONS 105), (anon_sym_match, ACTIONS 107), (anon_sym_async, ACTIONS 109),
    (anon_sym_for, ACTIONS 111), (anon_sym_while, ACTIONS 113), (anon_sym_try, ACTIONS 115),
    (anon_sym_with, ACTIONS 117), (anon_sym_def, ACTIONS 119), (anon_sym_fn, ACTIONS 119),
    (anon_sym_LBRACK, ACTIONS 59), (anon_sym_LBRACE, ACTIONS 61), (anon_sym_global, ACTIONS 63),
    (anon_sym_nonlocal, ACTIONS 65), (anon_sym_exec, ACTIONS 67), (anon_sym_type, ACTIONS 69),
    (anon_sym_class, ACTIONS 121), (anon_sym_struct, ACTIONS 121), (anon_sym_mut, ACTIONS 73),
    (anon_sym_out, ACTIONS 73), (anon_sym_trait, ACTIONS 123), (anon_sym_AT, ACTIONS 77),
    (anon_sym_DASH, ACTIONS 79), (anon_sym_PLUS, ACTIONS 79), (anon_sym_ref, ACTIONS 81),
    (anon_sym_var, ACTIONS 81), (anon_sym_not, ACTIONS 83), (anon_sym_TILDE, ACTIONS 79),
    (anon_sym_lambda, ACTIONS 85), (anon_sym_yield, ACTIONS 87), (sym_ellipsis, ACTIONS 89),
    (anon_sym___mlir_type, ACTIONS 91), (sym_integer, ACTIONS 93), (sym_float, ACTIONS 89),
    (anon_sym_await, ACTIONS 95), (sym_true, ACTIONS 93), (sym_false, ACTIONS 93),
    (sym_none, ACTIONS 93), (sym_comment, ACTIONS 3), (sym_line_continuation, ACTIONS 3),
    (sym__dedent, ACTIONS 129), (sym_string_start, ACTIONS 97)]"

definition parse_table_81 :: "(nat \<times> nat) list" where "parse_table_81 = [
    (sym__statement, STATE 925), (sym__simple_statements, STATE 925),
    (sym_import_statement, STATE 11814), (sym_future_import_statement, STATE 11814),
    (sym_import_from_statement, STATE 11814), (sym_print_statement, STATE 11814),
    (sym_assert_statement, STATE 11814), (sym_comptime_assert_statement, STATE 11814),
    (sym_expression_statement, STATE 11814), (sym_tuple_expression, STATE 12425),
    (sym_named_expression, STATE 7969), (sym__named_expression_lhs, STATE 12752),
    (sym_return_statement, STATE 11814), (sym_delete_statement, STATE 11814),
    (sym_raise_statement, STATE 11814), (sym_pass_statement, STATE 11814),
    (sym_break_statement, STATE 11814), (sym_continue_statement, STATE 11814),
    (sym_extension_definition, STATE 925), (sym_mlir_region, STATE 925),
    (sym_comptime_statement, STATE 925), (sym_if_statement, STATE 925),
    (sym_match_statement, STATE 925), (sym_for_statement, STATE 925),
    (sym_while_statement, STATE 925), (sym_try_statement, STATE 925),
    (sym_with_statement, STATE 925), (sym_function_definition, STATE 925),
    (sym_global_statement, STATE 11814), (sym_nonlocal_statement, STATE 11814),
    (sym_exec_statement, STATE 11814), (sym_type_alias_statement, STATE 11814),
    (sym_parameterized_alias_statement, STATE 11814), (sym_class_definition, STATE 925),
    (sym_trait_definition, STATE 925), (sym_decorated_definition, STATE 925),
    (sym_decorator, STATE 3670), (sym_block, STATE 6600), (sym_pattern, STATE 8086),
    (sym_tuple_pattern, STATE 8101), (sym_list_pattern, STATE 8101),
    (sym_list_splat_pattern, STATE 6819), (sym_as_pattern, STATE 7969),
    (sym_expression, STATE 9883), (sym_primary_expression, STATE 7326),
    (sym_comptime_expression, STATE 7017), (sym_transfer_expression, STATE 7017),
    (sym_not_operator, STATE 7969), (sym_boolean_operator, STATE 7969),
    (sym_binary_operator, STATE 7017), (sym_unary_operator, STATE 7017),
    (sym_comparison_operator, STATE 7969), (sym_lambda, STATE 7969),
    (sym_assignment, STATE 12425), (sym_augmented_assignment, STATE 12425),
    (sym_pattern_list, STATE 8578), (sym_yield, STATE 12425), (sym_attribute, STATE 6836),
    (sym_subscript, STATE 6838), (sym_call, STATE 6845), (sym_mlir_type, STATE 7017),
    (sym_list, STATE 7017), (sym_set, STATE 7017), (sym_tuple, STATE 7017),
    (sym_dictionary, STATE 7017), (sym_struct_literal, STATE 7017),
    (sym_list_comprehension, STATE 7017), (sym_dictionary_comprehension, STATE 7017),
    (sym_set_comprehension, STATE 7017), (sym_generator_expression, STATE 7017),
    (sym_parenthesized_expression, STATE 7017), (sym_conditional_expression, STATE 7969),
    (sym_concatenated_string, STATE 7017), (sym_string, STATE 6751), (sym_await, STATE 7017),
    (aux_sym_module_repeat1, STATE 925), (aux_sym_decorated_definition_repeat1, STATE 3670),
    (sym_identifier, ACTIONS 9), (anon_sym_import, ACTIONS 11), (anon_sym_from, ACTIONS 13),
    (anon_sym_LPAREN, ACTIONS 15), (anon_sym_STAR, ACTIONS 17), (anon_sym_print, ACTIONS 19),
    (anon_sym_comptime, ACTIONS 99), (anon_sym_assert, ACTIONS 23),
    (anon_sym___comptime_assert, ACTIONS 25), (anon_sym_return, ACTIONS 27),
    (anon_sym_del, ACTIONS 29), (anon_sym_raise, ACTIONS 31), (anon_sym_pass, ACTIONS 33),
    (anon_sym_break, ACTIONS 35), (anon_sym_continue, ACTIONS 37),
    (anon_sym___extension, ACTIONS 101), (anon_sym___mlir_region, ACTIONS 103),
    (anon_sym_if, ACTIONS 105), (anon_sym_match, ACTIONS 107), (anon_sym_async, ACTIONS 109),
    (anon_sym_for, ACTIONS 111), (anon_sym_while, ACTIONS 113), (anon_sym_try, ACTIONS 115),
    (anon_sym_with, ACTIONS 117), (anon_sym_def, ACTIONS 119), (anon_sym_fn, ACTIONS 119),
    (anon_sym_LBRACK, ACTIONS 59), (anon_sym_LBRACE, ACTIONS 61), (anon_sym_global, ACTIONS 63),
    (anon_sym_nonlocal, ACTIONS 65), (anon_sym_exec, ACTIONS 67), (anon_sym_type, ACTIONS 69),
    (anon_sym_class, ACTIONS 121), (anon_sym_struct, ACTIONS 121), (anon_sym_mut, ACTIONS 73),
    (anon_sym_out, ACTIONS 73), (anon_sym_trait, ACTIONS 123), (anon_sym_AT, ACTIONS 77),
    (anon_sym_DASH, ACTIONS 79), (anon_sym_PLUS, ACTIONS 79), (anon_sym_ref, ACTIONS 81),
    (anon_sym_var, ACTIONS 81), (anon_sym_not, ACTIONS 83), (anon_sym_TILDE, ACTIONS 79),
    (anon_sym_lambda, ACTIONS 85), (anon_sym_yield, ACTIONS 87), (sym_ellipsis, ACTIONS 89),
    (anon_sym___mlir_type, ACTIONS 91), (sym_integer, ACTIONS 93), (sym_float, ACTIONS 89),
    (anon_sym_await, ACTIONS 95), (sym_true, ACTIONS 93), (sym_false, ACTIONS 93),
    (sym_none, ACTIONS 93), (sym_comment, ACTIONS 3), (sym_line_continuation, ACTIONS 3),
    (sym__dedent, ACTIONS 129), (sym_string_start, ACTIONS 97)]"

definition parse_table_82 :: "(nat \<times> nat) list" where "parse_table_82 = [
    (sym__statement, STATE 925), (sym__simple_statements, STATE 925),
    (sym_import_statement, STATE 11814), (sym_future_import_statement, STATE 11814),
    (sym_import_from_statement, STATE 11814), (sym_print_statement, STATE 11814),
    (sym_assert_statement, STATE 11814), (sym_comptime_assert_statement, STATE 11814),
    (sym_expression_statement, STATE 11814), (sym_tuple_expression, STATE 12425),
    (sym_named_expression, STATE 7969), (sym__named_expression_lhs, STATE 12752),
    (sym_return_statement, STATE 11814), (sym_delete_statement, STATE 11814),
    (sym_raise_statement, STATE 11814), (sym_pass_statement, STATE 11814),
    (sym_break_statement, STATE 11814), (sym_continue_statement, STATE 11814),
    (sym_extension_definition, STATE 925), (sym_mlir_region, STATE 925),
    (sym_comptime_statement, STATE 925), (sym_if_statement, STATE 925),
    (sym_match_statement, STATE 925), (sym_for_statement, STATE 925),
    (sym_while_statement, STATE 925), (sym_try_statement, STATE 925),
    (sym_with_statement, STATE 925), (sym_function_definition, STATE 925),
    (sym_global_statement, STATE 11814), (sym_nonlocal_statement, STATE 11814),
    (sym_exec_statement, STATE 11814), (sym_type_alias_statement, STATE 11814),
    (sym_parameterized_alias_statement, STATE 11814), (sym_class_definition, STATE 925),
    (sym_trait_definition, STATE 925), (sym_decorated_definition, STATE 925),
    (sym_decorator, STATE 3670), (sym_block, STATE 6619), (sym_pattern, STATE 8086),
    (sym_tuple_pattern, STATE 8101), (sym_list_pattern, STATE 8101),
    (sym_list_splat_pattern, STATE 6819), (sym_as_pattern, STATE 7969),
    (sym_expression, STATE 9883), (sym_primary_expression, STATE 7326),
    (sym_comptime_expression, STATE 7017), (sym_transfer_expression, STATE 7017),
    (sym_not_operator, STATE 7969), (sym_boolean_operator, STATE 7969),
    (sym_binary_operator, STATE 7017), (sym_unary_operator, STATE 7017),
    (sym_comparison_operator, STATE 7969), (sym_lambda, STATE 7969),
    (sym_assignment, STATE 12425), (sym_augmented_assignment, STATE 12425),
    (sym_pattern_list, STATE 8578), (sym_yield, STATE 12425), (sym_attribute, STATE 6836),
    (sym_subscript, STATE 6838), (sym_call, STATE 6845), (sym_mlir_type, STATE 7017),
    (sym_list, STATE 7017), (sym_set, STATE 7017), (sym_tuple, STATE 7017),
    (sym_dictionary, STATE 7017), (sym_struct_literal, STATE 7017),
    (sym_list_comprehension, STATE 7017), (sym_dictionary_comprehension, STATE 7017),
    (sym_set_comprehension, STATE 7017), (sym_generator_expression, STATE 7017),
    (sym_parenthesized_expression, STATE 7017), (sym_conditional_expression, STATE 7969),
    (sym_concatenated_string, STATE 7017), (sym_string, STATE 6751), (sym_await, STATE 7017),
    (aux_sym_module_repeat1, STATE 925), (aux_sym_decorated_definition_repeat1, STATE 3670),
    (sym_identifier, ACTIONS 9), (anon_sym_import, ACTIONS 11), (anon_sym_from, ACTIONS 13),
    (anon_sym_LPAREN, ACTIONS 15), (anon_sym_STAR, ACTIONS 17), (anon_sym_print, ACTIONS 19),
    (anon_sym_comptime, ACTIONS 99), (anon_sym_assert, ACTIONS 23),
    (anon_sym___comptime_assert, ACTIONS 25), (anon_sym_return, ACTIONS 27),
    (anon_sym_del, ACTIONS 29), (anon_sym_raise, ACTIONS 31), (anon_sym_pass, ACTIONS 33),
    (anon_sym_break, ACTIONS 35), (anon_sym_continue, ACTIONS 37),
    (anon_sym___extension, ACTIONS 101), (anon_sym___mlir_region, ACTIONS 103),
    (anon_sym_if, ACTIONS 105), (anon_sym_match, ACTIONS 107), (anon_sym_async, ACTIONS 109),
    (anon_sym_for, ACTIONS 111), (anon_sym_while, ACTIONS 113), (anon_sym_try, ACTIONS 115),
    (anon_sym_with, ACTIONS 117), (anon_sym_def, ACTIONS 119), (anon_sym_fn, ACTIONS 119),
    (anon_sym_LBRACK, ACTIONS 59), (anon_sym_LBRACE, ACTIONS 61), (anon_sym_global, ACTIONS 63),
    (anon_sym_nonlocal, ACTIONS 65), (anon_sym_exec, ACTIONS 67), (anon_sym_type, ACTIONS 69),
    (anon_sym_class, ACTIONS 121), (anon_sym_struct, ACTIONS 121), (anon_sym_mut, ACTIONS 73),
    (anon_sym_out, ACTIONS 73), (anon_sym_trait, ACTIONS 123), (anon_sym_AT, ACTIONS 77),
    (anon_sym_DASH, ACTIONS 79), (anon_sym_PLUS, ACTIONS 79), (anon_sym_ref, ACTIONS 81),
    (anon_sym_var, ACTIONS 81), (anon_sym_not, ACTIONS 83), (anon_sym_TILDE, ACTIONS 79),
    (anon_sym_lambda, ACTIONS 85), (anon_sym_yield, ACTIONS 87), (sym_ellipsis, ACTIONS 89),
    (anon_sym___mlir_type, ACTIONS 91), (sym_integer, ACTIONS 93), (sym_float, ACTIONS 89),
    (anon_sym_await, ACTIONS 95), (sym_true, ACTIONS 93), (sym_false, ACTIONS 93),
    (sym_none, ACTIONS 93), (sym_comment, ACTIONS 3), (sym_line_continuation, ACTIONS 3),
    (sym__dedent, ACTIONS 129), (sym_string_start, ACTIONS 97)]"

definition parse_table_83 :: "(nat \<times> nat) list" where "parse_table_83 = [
    (sym__statement, STATE 925), (sym__simple_statements, STATE 925),
    (sym_import_statement, STATE 11814), (sym_future_import_statement, STATE 11814),
    (sym_import_from_statement, STATE 11814), (sym_print_statement, STATE 11814),
    (sym_assert_statement, STATE 11814), (sym_comptime_assert_statement, STATE 11814),
    (sym_expression_statement, STATE 11814), (sym_tuple_expression, STATE 12425),
    (sym_named_expression, STATE 7969), (sym__named_expression_lhs, STATE 12752),
    (sym_return_statement, STATE 11814), (sym_delete_statement, STATE 11814),
    (sym_raise_statement, STATE 11814), (sym_pass_statement, STATE 11814),
    (sym_break_statement, STATE 11814), (sym_continue_statement, STATE 11814),
    (sym_extension_definition, STATE 925), (sym_mlir_region, STATE 925),
    (sym_comptime_statement, STATE 925), (sym_if_statement, STATE 925),
    (sym_match_statement, STATE 925), (sym_for_statement, STATE 925),
    (sym_while_statement, STATE 925), (sym_try_statement, STATE 925),
    (sym_with_statement, STATE 925), (sym_function_definition, STATE 925),
    (sym_global_statement, STATE 11814), (sym_nonlocal_statement, STATE 11814),
    (sym_exec_statement, STATE 11814), (sym_type_alias_statement, STATE 11814),
    (sym_parameterized_alias_statement, STATE 11814), (sym_class_definition, STATE 925),
    (sym_trait_definition, STATE 925), (sym_decorated_definition, STATE 925),
    (sym_decorator, STATE 3670), (sym_block, STATE 6707), (sym_pattern, STATE 8086),
    (sym_tuple_pattern, STATE 8101), (sym_list_pattern, STATE 8101),
    (sym_list_splat_pattern, STATE 6819), (sym_as_pattern, STATE 7969),
    (sym_expression, STATE 9883), (sym_primary_expression, STATE 7326),
    (sym_comptime_expression, STATE 7017), (sym_transfer_expression, STATE 7017),
    (sym_not_operator, STATE 7969), (sym_boolean_operator, STATE 7969),
    (sym_binary_operator, STATE 7017), (sym_unary_operator, STATE 7017),
    (sym_comparison_operator, STATE 7969), (sym_lambda, STATE 7969),
    (sym_assignment, STATE 12425), (sym_augmented_assignment, STATE 12425),
    (sym_pattern_list, STATE 8578), (sym_yield, STATE 12425), (sym_attribute, STATE 6836),
    (sym_subscript, STATE 6838), (sym_call, STATE 6845), (sym_mlir_type, STATE 7017),
    (sym_list, STATE 7017), (sym_set, STATE 7017), (sym_tuple, STATE 7017),
    (sym_dictionary, STATE 7017), (sym_struct_literal, STATE 7017),
    (sym_list_comprehension, STATE 7017), (sym_dictionary_comprehension, STATE 7017),
    (sym_set_comprehension, STATE 7017), (sym_generator_expression, STATE 7017),
    (sym_parenthesized_expression, STATE 7017), (sym_conditional_expression, STATE 7969),
    (sym_concatenated_string, STATE 7017), (sym_string, STATE 6751), (sym_await, STATE 7017),
    (aux_sym_module_repeat1, STATE 925), (aux_sym_decorated_definition_repeat1, STATE 3670),
    (sym_identifier, ACTIONS 9), (anon_sym_import, ACTIONS 11), (anon_sym_from, ACTIONS 13),
    (anon_sym_LPAREN, ACTIONS 15), (anon_sym_STAR, ACTIONS 17), (anon_sym_print, ACTIONS 19),
    (anon_sym_comptime, ACTIONS 99), (anon_sym_assert, ACTIONS 23),
    (anon_sym___comptime_assert, ACTIONS 25), (anon_sym_return, ACTIONS 27),
    (anon_sym_del, ACTIONS 29), (anon_sym_raise, ACTIONS 31), (anon_sym_pass, ACTIONS 33),
    (anon_sym_break, ACTIONS 35), (anon_sym_continue, ACTIONS 37),
    (anon_sym___extension, ACTIONS 101), (anon_sym___mlir_region, ACTIONS 103),
    (anon_sym_if, ACTIONS 105), (anon_sym_match, ACTIONS 107), (anon_sym_async, ACTIONS 109),
    (anon_sym_for, ACTIONS 111), (anon_sym_while, ACTIONS 113), (anon_sym_try, ACTIONS 115),
    (anon_sym_with, ACTIONS 117), (anon_sym_def, ACTIONS 119), (anon_sym_fn, ACTIONS 119),
    (anon_sym_LBRACK, ACTIONS 59), (anon_sym_LBRACE, ACTIONS 61), (anon_sym_global, ACTIONS 63),
    (anon_sym_nonlocal, ACTIONS 65), (anon_sym_exec, ACTIONS 67), (anon_sym_type, ACTIONS 69),
    (anon_sym_class, ACTIONS 121), (anon_sym_struct, ACTIONS 121), (anon_sym_mut, ACTIONS 73),
    (anon_sym_out, ACTIONS 73), (anon_sym_trait, ACTIONS 123), (anon_sym_AT, ACTIONS 77),
    (anon_sym_DASH, ACTIONS 79), (anon_sym_PLUS, ACTIONS 79), (anon_sym_ref, ACTIONS 81),
    (anon_sym_var, ACTIONS 81), (anon_sym_not, ACTIONS 83), (anon_sym_TILDE, ACTIONS 79),
    (anon_sym_lambda, ACTIONS 85), (anon_sym_yield, ACTIONS 87), (sym_ellipsis, ACTIONS 89),
    (anon_sym___mlir_type, ACTIONS 91), (sym_integer, ACTIONS 93), (sym_float, ACTIONS 89),
    (anon_sym_await, ACTIONS 95), (sym_true, ACTIONS 93), (sym_false, ACTIONS 93),
    (sym_none, ACTIONS 93), (sym_comment, ACTIONS 3), (sym_line_continuation, ACTIONS 3),
    (sym__dedent, ACTIONS 129), (sym_string_start, ACTIONS 97)]"

definition parse_table_84 :: "(nat \<times> nat) list" where "parse_table_84 = [
    (sym__statement, STATE 925), (sym__simple_statements, STATE 925),
    (sym_import_statement, STATE 11814), (sym_future_import_statement, STATE 11814),
    (sym_import_from_statement, STATE 11814), (sym_print_statement, STATE 11814),
    (sym_assert_statement, STATE 11814), (sym_comptime_assert_statement, STATE 11814),
    (sym_expression_statement, STATE 11814), (sym_tuple_expression, STATE 12425),
    (sym_named_expression, STATE 7969), (sym__named_expression_lhs, STATE 12752),
    (sym_return_statement, STATE 11814), (sym_delete_statement, STATE 11814),
    (sym_raise_statement, STATE 11814), (sym_pass_statement, STATE 11814),
    (sym_break_statement, STATE 11814), (sym_continue_statement, STATE 11814),
    (sym_extension_definition, STATE 925), (sym_mlir_region, STATE 925),
    (sym_comptime_statement, STATE 925), (sym_if_statement, STATE 925),
    (sym_match_statement, STATE 925), (sym_for_statement, STATE 925),
    (sym_while_statement, STATE 925), (sym_try_statement, STATE 925),
    (sym_with_statement, STATE 925), (sym_function_definition, STATE 925),
    (sym_global_statement, STATE 11814), (sym_nonlocal_statement, STATE 11814),
    (sym_exec_statement, STATE 11814), (sym_type_alias_statement, STATE 11814),
    (sym_parameterized_alias_statement, STATE 11814), (sym_class_definition, STATE 925),
    (sym_trait_definition, STATE 925), (sym_decorated_definition, STATE 925),
    (sym_decorator, STATE 3670), (sym_block, STATE 4521), (sym_pattern, STATE 8086),
    (sym_tuple_pattern, STATE 8101), (sym_list_pattern, STATE 8101),
    (sym_list_splat_pattern, STATE 6819), (sym_as_pattern, STATE 7969),
    (sym_expression, STATE 9883), (sym_primary_expression, STATE 7326),
    (sym_comptime_expression, STATE 7017), (sym_transfer_expression, STATE 7017),
    (sym_not_operator, STATE 7969), (sym_boolean_operator, STATE 7969),
    (sym_binary_operator, STATE 7017), (sym_unary_operator, STATE 7017),
    (sym_comparison_operator, STATE 7969), (sym_lambda, STATE 7969),
    (sym_assignment, STATE 12425), (sym_augmented_assignment, STATE 12425),
    (sym_pattern_list, STATE 8578), (sym_yield, STATE 12425), (sym_attribute, STATE 6836),
    (sym_subscript, STATE 6838), (sym_call, STATE 6845), (sym_mlir_type, STATE 7017),
    (sym_list, STATE 7017), (sym_set, STATE 7017), (sym_tuple, STATE 7017),
    (sym_dictionary, STATE 7017), (sym_struct_literal, STATE 7017),
    (sym_list_comprehension, STATE 7017), (sym_dictionary_comprehension, STATE 7017),
    (sym_set_comprehension, STATE 7017), (sym_generator_expression, STATE 7017),
    (sym_parenthesized_expression, STATE 7017), (sym_conditional_expression, STATE 7969),
    (sym_concatenated_string, STATE 7017), (sym_string, STATE 6751), (sym_await, STATE 7017),
    (aux_sym_module_repeat1, STATE 925), (aux_sym_decorated_definition_repeat1, STATE 3670),
    (sym_identifier, ACTIONS 9), (anon_sym_import, ACTIONS 11), (anon_sym_from, ACTIONS 13),
    (anon_sym_LPAREN, ACTIONS 15), (anon_sym_STAR, ACTIONS 17), (anon_sym_print, ACTIONS 19),
    (anon_sym_comptime, ACTIONS 99), (anon_sym_assert, ACTIONS 23),
    (anon_sym___comptime_assert, ACTIONS 25), (anon_sym_return, ACTIONS 27),
    (anon_sym_del, ACTIONS 29), (anon_sym_raise, ACTIONS 31), (anon_sym_pass, ACTIONS 33),
    (anon_sym_break, ACTIONS 35), (anon_sym_continue, ACTIONS 37),
    (anon_sym___extension, ACTIONS 101), (anon_sym___mlir_region, ACTIONS 103),
    (anon_sym_if, ACTIONS 105), (anon_sym_match, ACTIONS 107), (anon_sym_async, ACTIONS 109),
    (anon_sym_for, ACTIONS 111), (anon_sym_while, ACTIONS 113), (anon_sym_try, ACTIONS 115),
    (anon_sym_with, ACTIONS 117), (anon_sym_def, ACTIONS 119), (anon_sym_fn, ACTIONS 119),
    (anon_sym_LBRACK, ACTIONS 59), (anon_sym_LBRACE, ACTIONS 61), (anon_sym_global, ACTIONS 63),
    (anon_sym_nonlocal, ACTIONS 65), (anon_sym_exec, ACTIONS 67), (anon_sym_type, ACTIONS 69),
    (anon_sym_class, ACTIONS 121), (anon_sym_struct, ACTIONS 121), (anon_sym_mut, ACTIONS 73),
    (anon_sym_out, ACTIONS 73), (anon_sym_trait, ACTIONS 123), (anon_sym_AT, ACTIONS 77),
    (anon_sym_DASH, ACTIONS 79), (anon_sym_PLUS, ACTIONS 79), (anon_sym_ref, ACTIONS 81),
    (anon_sym_var, ACTIONS 81), (anon_sym_not, ACTIONS 83), (anon_sym_TILDE, ACTIONS 79),
    (anon_sym_lambda, ACTIONS 85), (anon_sym_yield, ACTIONS 87), (sym_ellipsis, ACTIONS 89),
    (anon_sym___mlir_type, ACTIONS 91), (sym_integer, ACTIONS 93), (sym_float, ACTIONS 89),
    (anon_sym_await, ACTIONS 95), (sym_true, ACTIONS 93), (sym_false, ACTIONS 93),
    (sym_none, ACTIONS 93), (sym_comment, ACTIONS 3), (sym_line_continuation, ACTIONS 3),
    (sym__dedent, ACTIONS 129), (sym_string_start, ACTIONS 97)]"

definition parse_table_85 :: "(nat \<times> nat) list" where "parse_table_85 = [
    (sym__statement, STATE 925), (sym__simple_statements, STATE 925),
    (sym_import_statement, STATE 11814), (sym_future_import_statement, STATE 11814),
    (sym_import_from_statement, STATE 11814), (sym_print_statement, STATE 11814),
    (sym_assert_statement, STATE 11814), (sym_comptime_assert_statement, STATE 11814),
    (sym_expression_statement, STATE 11814), (sym_tuple_expression, STATE 12425),
    (sym_named_expression, STATE 7969), (sym__named_expression_lhs, STATE 12752),
    (sym_return_statement, STATE 11814), (sym_delete_statement, STATE 11814),
    (sym_raise_statement, STATE 11814), (sym_pass_statement, STATE 11814),
    (sym_break_statement, STATE 11814), (sym_continue_statement, STATE 11814),
    (sym_extension_definition, STATE 925), (sym_mlir_region, STATE 925),
    (sym_comptime_statement, STATE 925), (sym_if_statement, STATE 925),
    (sym_match_statement, STATE 925), (sym_for_statement, STATE 925),
    (sym_while_statement, STATE 925), (sym_try_statement, STATE 925),
    (sym_with_statement, STATE 925), (sym_function_definition, STATE 925),
    (sym_global_statement, STATE 11814), (sym_nonlocal_statement, STATE 11814),
    (sym_exec_statement, STATE 11814), (sym_type_alias_statement, STATE 11814),
    (sym_parameterized_alias_statement, STATE 11814), (sym_class_definition, STATE 925),
    (sym_trait_definition, STATE 925), (sym_decorated_definition, STATE 925),
    (sym_decorator, STATE 3670), (sym_block, STATE 4577), (sym_pattern, STATE 8086),
    (sym_tuple_pattern, STATE 8101), (sym_list_pattern, STATE 8101),
    (sym_list_splat_pattern, STATE 6819), (sym_as_pattern, STATE 7969),
    (sym_expression, STATE 9883), (sym_primary_expression, STATE 7326),
    (sym_comptime_expression, STATE 7017), (sym_transfer_expression, STATE 7017),
    (sym_not_operator, STATE 7969), (sym_boolean_operator, STATE 7969),
    (sym_binary_operator, STATE 7017), (sym_unary_operator, STATE 7017),
    (sym_comparison_operator, STATE 7969), (sym_lambda, STATE 7969),
    (sym_assignment, STATE 12425), (sym_augmented_assignment, STATE 12425),
    (sym_pattern_list, STATE 8578), (sym_yield, STATE 12425), (sym_attribute, STATE 6836),
    (sym_subscript, STATE 6838), (sym_call, STATE 6845), (sym_mlir_type, STATE 7017),
    (sym_list, STATE 7017), (sym_set, STATE 7017), (sym_tuple, STATE 7017),
    (sym_dictionary, STATE 7017), (sym_struct_literal, STATE 7017),
    (sym_list_comprehension, STATE 7017), (sym_dictionary_comprehension, STATE 7017),
    (sym_set_comprehension, STATE 7017), (sym_generator_expression, STATE 7017),
    (sym_parenthesized_expression, STATE 7017), (sym_conditional_expression, STATE 7969),
    (sym_concatenated_string, STATE 7017), (sym_string, STATE 6751), (sym_await, STATE 7017),
    (aux_sym_module_repeat1, STATE 925), (aux_sym_decorated_definition_repeat1, STATE 3670),
    (sym_identifier, ACTIONS 9), (anon_sym_import, ACTIONS 11), (anon_sym_from, ACTIONS 13),
    (anon_sym_LPAREN, ACTIONS 15), (anon_sym_STAR, ACTIONS 17), (anon_sym_print, ACTIONS 19),
    (anon_sym_comptime, ACTIONS 99), (anon_sym_assert, ACTIONS 23),
    (anon_sym___comptime_assert, ACTIONS 25), (anon_sym_return, ACTIONS 27),
    (anon_sym_del, ACTIONS 29), (anon_sym_raise, ACTIONS 31), (anon_sym_pass, ACTIONS 33),
    (anon_sym_break, ACTIONS 35), (anon_sym_continue, ACTIONS 37),
    (anon_sym___extension, ACTIONS 101), (anon_sym___mlir_region, ACTIONS 103),
    (anon_sym_if, ACTIONS 105), (anon_sym_match, ACTIONS 107), (anon_sym_async, ACTIONS 109),
    (anon_sym_for, ACTIONS 111), (anon_sym_while, ACTIONS 113), (anon_sym_try, ACTIONS 115),
    (anon_sym_with, ACTIONS 117), (anon_sym_def, ACTIONS 119), (anon_sym_fn, ACTIONS 119),
    (anon_sym_LBRACK, ACTIONS 59), (anon_sym_LBRACE, ACTIONS 61), (anon_sym_global, ACTIONS 63),
    (anon_sym_nonlocal, ACTIONS 65), (anon_sym_exec, ACTIONS 67), (anon_sym_type, ACTIONS 69),
    (anon_sym_class, ACTIONS 121), (anon_sym_struct, ACTIONS 121), (anon_sym_mut, ACTIONS 73),
    (anon_sym_out, ACTIONS 73), (anon_sym_trait, ACTIONS 123), (anon_sym_AT, ACTIONS 77),
    (anon_sym_DASH, ACTIONS 79), (anon_sym_PLUS, ACTIONS 79), (anon_sym_ref, ACTIONS 81),
    (anon_sym_var, ACTIONS 81), (anon_sym_not, ACTIONS 83), (anon_sym_TILDE, ACTIONS 79),
    (anon_sym_lambda, ACTIONS 85), (anon_sym_yield, ACTIONS 87), (sym_ellipsis, ACTIONS 89),
    (anon_sym___mlir_type, ACTIONS 91), (sym_integer, ACTIONS 93), (sym_float, ACTIONS 89),
    (anon_sym_await, ACTIONS 95), (sym_true, ACTIONS 93), (sym_false, ACTIONS 93),
    (sym_none, ACTIONS 93), (sym_comment, ACTIONS 3), (sym_line_continuation, ACTIONS 3),
    (sym__dedent, ACTIONS 129), (sym_string_start, ACTIONS 97)]"

definition parse_table_86 :: "(nat \<times> nat) list" where "parse_table_86 = [
    (sym__statement, STATE 925), (sym__simple_statements, STATE 925),
    (sym_import_statement, STATE 11814), (sym_future_import_statement, STATE 11814),
    (sym_import_from_statement, STATE 11814), (sym_print_statement, STATE 11814),
    (sym_assert_statement, STATE 11814), (sym_comptime_assert_statement, STATE 11814),
    (sym_expression_statement, STATE 11814), (sym_tuple_expression, STATE 12425),
    (sym_named_expression, STATE 7969), (sym__named_expression_lhs, STATE 12752),
    (sym_return_statement, STATE 11814), (sym_delete_statement, STATE 11814),
    (sym_raise_statement, STATE 11814), (sym_pass_statement, STATE 11814),
    (sym_break_statement, STATE 11814), (sym_continue_statement, STATE 11814),
    (sym_extension_definition, STATE 925), (sym_mlir_region, STATE 925),
    (sym_comptime_statement, STATE 925), (sym_if_statement, STATE 925),
    (sym_match_statement, STATE 925), (sym_for_statement, STATE 925),
    (sym_while_statement, STATE 925), (sym_try_statement, STATE 925),
    (sym_with_statement, STATE 925), (sym_function_definition, STATE 925),
    (sym_global_statement, STATE 11814), (sym_nonlocal_statement, STATE 11814),
    (sym_exec_statement, STATE 11814), (sym_type_alias_statement, STATE 11814),
    (sym_parameterized_alias_statement, STATE 11814), (sym_class_definition, STATE 925),
    (sym_trait_definition, STATE 925), (sym_decorated_definition, STATE 925),
    (sym_decorator, STATE 3670), (sym_block, STATE 4683), (sym_pattern, STATE 8086),
    (sym_tuple_pattern, STATE 8101), (sym_list_pattern, STATE 8101),
    (sym_list_splat_pattern, STATE 6819), (sym_as_pattern, STATE 7969),
    (sym_expression, STATE 9883), (sym_primary_expression, STATE 7326),
    (sym_comptime_expression, STATE 7017), (sym_transfer_expression, STATE 7017),
    (sym_not_operator, STATE 7969), (sym_boolean_operator, STATE 7969),
    (sym_binary_operator, STATE 7017), (sym_unary_operator, STATE 7017),
    (sym_comparison_operator, STATE 7969), (sym_lambda, STATE 7969),
    (sym_assignment, STATE 12425), (sym_augmented_assignment, STATE 12425),
    (sym_pattern_list, STATE 8578), (sym_yield, STATE 12425), (sym_attribute, STATE 6836),
    (sym_subscript, STATE 6838), (sym_call, STATE 6845), (sym_mlir_type, STATE 7017),
    (sym_list, STATE 7017), (sym_set, STATE 7017), (sym_tuple, STATE 7017),
    (sym_dictionary, STATE 7017), (sym_struct_literal, STATE 7017),
    (sym_list_comprehension, STATE 7017), (sym_dictionary_comprehension, STATE 7017),
    (sym_set_comprehension, STATE 7017), (sym_generator_expression, STATE 7017),
    (sym_parenthesized_expression, STATE 7017), (sym_conditional_expression, STATE 7969),
    (sym_concatenated_string, STATE 7017), (sym_string, STATE 6751), (sym_await, STATE 7017),
    (aux_sym_module_repeat1, STATE 925), (aux_sym_decorated_definition_repeat1, STATE 3670),
    (sym_identifier, ACTIONS 9), (anon_sym_import, ACTIONS 11), (anon_sym_from, ACTIONS 13),
    (anon_sym_LPAREN, ACTIONS 15), (anon_sym_STAR, ACTIONS 17), (anon_sym_print, ACTIONS 19),
    (anon_sym_comptime, ACTIONS 99), (anon_sym_assert, ACTIONS 23),
    (anon_sym___comptime_assert, ACTIONS 25), (anon_sym_return, ACTIONS 27),
    (anon_sym_del, ACTIONS 29), (anon_sym_raise, ACTIONS 31), (anon_sym_pass, ACTIONS 33),
    (anon_sym_break, ACTIONS 35), (anon_sym_continue, ACTIONS 37),
    (anon_sym___extension, ACTIONS 101), (anon_sym___mlir_region, ACTIONS 103),
    (anon_sym_if, ACTIONS 105), (anon_sym_match, ACTIONS 107), (anon_sym_async, ACTIONS 109),
    (anon_sym_for, ACTIONS 111), (anon_sym_while, ACTIONS 113), (anon_sym_try, ACTIONS 115),
    (anon_sym_with, ACTIONS 117), (anon_sym_def, ACTIONS 119), (anon_sym_fn, ACTIONS 119),
    (anon_sym_LBRACK, ACTIONS 59), (anon_sym_LBRACE, ACTIONS 61), (anon_sym_global, ACTIONS 63),
    (anon_sym_nonlocal, ACTIONS 65), (anon_sym_exec, ACTIONS 67), (anon_sym_type, ACTIONS 69),
    (anon_sym_class, ACTIONS 121), (anon_sym_struct, ACTIONS 121), (anon_sym_mut, ACTIONS 73),
    (anon_sym_out, ACTIONS 73), (anon_sym_trait, ACTIONS 123), (anon_sym_AT, ACTIONS 77),
    (anon_sym_DASH, ACTIONS 79), (anon_sym_PLUS, ACTIONS 79), (anon_sym_ref, ACTIONS 81),
    (anon_sym_var, ACTIONS 81), (anon_sym_not, ACTIONS 83), (anon_sym_TILDE, ACTIONS 79),
    (anon_sym_lambda, ACTIONS 85), (anon_sym_yield, ACTIONS 87), (sym_ellipsis, ACTIONS 89),
    (anon_sym___mlir_type, ACTIONS 91), (sym_integer, ACTIONS 93), (sym_float, ACTIONS 89),
    (anon_sym_await, ACTIONS 95), (sym_true, ACTIONS 93), (sym_false, ACTIONS 93),
    (sym_none, ACTIONS 93), (sym_comment, ACTIONS 3), (sym_line_continuation, ACTIONS 3),
    (sym__dedent, ACTIONS 129), (sym_string_start, ACTIONS 97)]"

definition parse_table_87 :: "(nat \<times> nat) list" where "parse_table_87 = [
    (sym__statement, STATE 925), (sym__simple_statements, STATE 925),
    (sym_import_statement, STATE 11814), (sym_future_import_statement, STATE 11814),
    (sym_import_from_statement, STATE 11814), (sym_print_statement, STATE 11814),
    (sym_assert_statement, STATE 11814), (sym_comptime_assert_statement, STATE 11814),
    (sym_expression_statement, STATE 11814), (sym_tuple_expression, STATE 12425),
    (sym_named_expression, STATE 7969), (sym__named_expression_lhs, STATE 12752),
    (sym_return_statement, STATE 11814), (sym_delete_statement, STATE 11814),
    (sym_raise_statement, STATE 11814), (sym_pass_statement, STATE 11814),
    (sym_break_statement, STATE 11814), (sym_continue_statement, STATE 11814),
    (sym_extension_definition, STATE 925), (sym_mlir_region, STATE 925),
    (sym_comptime_statement, STATE 925), (sym_if_statement, STATE 925),
    (sym_match_statement, STATE 925), (sym_for_statement, STATE 925),
    (sym_while_statement, STATE 925), (sym_try_statement, STATE 925),
    (sym_with_statement, STATE 925), (sym_function_definition, STATE 925),
    (sym_global_statement, STATE 11814), (sym_nonlocal_statement, STATE 11814),
    (sym_exec_statement, STATE 11814), (sym_type_alias_statement, STATE 11814),
    (sym_parameterized_alias_statement, STATE 11814), (sym_class_definition, STATE 925),
    (sym_trait_definition, STATE 925), (sym_decorated_definition, STATE 925),
    (sym_decorator, STATE 3670), (sym_block, STATE 4504), (sym_pattern, STATE 8086),
    (sym_tuple_pattern, STATE 8101), (sym_list_pattern, STATE 8101),
    (sym_list_splat_pattern, STATE 6819), (sym_as_pattern, STATE 7969),
    (sym_expression, STATE 9883), (sym_primary_expression, STATE 7326),
    (sym_comptime_expression, STATE 7017), (sym_transfer_expression, STATE 7017),
    (sym_not_operator, STATE 7969), (sym_boolean_operator, STATE 7969),
    (sym_binary_operator, STATE 7017), (sym_unary_operator, STATE 7017),
    (sym_comparison_operator, STATE 7969), (sym_lambda, STATE 7969),
    (sym_assignment, STATE 12425), (sym_augmented_assignment, STATE 12425),
    (sym_pattern_list, STATE 8578), (sym_yield, STATE 12425), (sym_attribute, STATE 6836),
    (sym_subscript, STATE 6838), (sym_call, STATE 6845), (sym_mlir_type, STATE 7017),
    (sym_list, STATE 7017), (sym_set, STATE 7017), (sym_tuple, STATE 7017),
    (sym_dictionary, STATE 7017), (sym_struct_literal, STATE 7017),
    (sym_list_comprehension, STATE 7017), (sym_dictionary_comprehension, STATE 7017),
    (sym_set_comprehension, STATE 7017), (sym_generator_expression, STATE 7017),
    (sym_parenthesized_expression, STATE 7017), (sym_conditional_expression, STATE 7969),
    (sym_concatenated_string, STATE 7017), (sym_string, STATE 6751), (sym_await, STATE 7017),
    (aux_sym_module_repeat1, STATE 925), (aux_sym_decorated_definition_repeat1, STATE 3670),
    (sym_identifier, ACTIONS 9), (anon_sym_import, ACTIONS 11), (anon_sym_from, ACTIONS 13),
    (anon_sym_LPAREN, ACTIONS 15), (anon_sym_STAR, ACTIONS 17), (anon_sym_print, ACTIONS 19),
    (anon_sym_comptime, ACTIONS 99), (anon_sym_assert, ACTIONS 23),
    (anon_sym___comptime_assert, ACTIONS 25), (anon_sym_return, ACTIONS 27),
    (anon_sym_del, ACTIONS 29), (anon_sym_raise, ACTIONS 31), (anon_sym_pass, ACTIONS 33),
    (anon_sym_break, ACTIONS 35), (anon_sym_continue, ACTIONS 37),
    (anon_sym___extension, ACTIONS 101), (anon_sym___mlir_region, ACTIONS 103),
    (anon_sym_if, ACTIONS 105), (anon_sym_match, ACTIONS 107), (anon_sym_async, ACTIONS 109),
    (anon_sym_for, ACTIONS 111), (anon_sym_while, ACTIONS 113), (anon_sym_try, ACTIONS 115),
    (anon_sym_with, ACTIONS 117), (anon_sym_def, ACTIONS 119), (anon_sym_fn, ACTIONS 119),
    (anon_sym_LBRACK, ACTIONS 59), (anon_sym_LBRACE, ACTIONS 61), (anon_sym_global, ACTIONS 63),
    (anon_sym_nonlocal, ACTIONS 65), (anon_sym_exec, ACTIONS 67), (anon_sym_type, ACTIONS 69),
    (anon_sym_class, ACTIONS 121), (anon_sym_struct, ACTIONS 121), (anon_sym_mut, ACTIONS 73),
    (anon_sym_out, ACTIONS 73), (anon_sym_trait, ACTIONS 123), (anon_sym_AT, ACTIONS 77),
    (anon_sym_DASH, ACTIONS 79), (anon_sym_PLUS, ACTIONS 79), (anon_sym_ref, ACTIONS 81),
    (anon_sym_var, ACTIONS 81), (anon_sym_not, ACTIONS 83), (anon_sym_TILDE, ACTIONS 79),
    (anon_sym_lambda, ACTIONS 85), (anon_sym_yield, ACTIONS 87), (sym_ellipsis, ACTIONS 89),
    (anon_sym___mlir_type, ACTIONS 91), (sym_integer, ACTIONS 93), (sym_float, ACTIONS 89),
    (anon_sym_await, ACTIONS 95), (sym_true, ACTIONS 93), (sym_false, ACTIONS 93),
    (sym_none, ACTIONS 93), (sym_comment, ACTIONS 3), (sym_line_continuation, ACTIONS 3),
    (sym__dedent, ACTIONS 129), (sym_string_start, ACTIONS 97)]"

definition parse_table_88 :: "(nat \<times> nat) list" where "parse_table_88 = [
    (sym__statement, STATE 925), (sym__simple_statements, STATE 925),
    (sym_import_statement, STATE 11814), (sym_future_import_statement, STATE 11814),
    (sym_import_from_statement, STATE 11814), (sym_print_statement, STATE 11814),
    (sym_assert_statement, STATE 11814), (sym_comptime_assert_statement, STATE 11814),
    (sym_expression_statement, STATE 11814), (sym_tuple_expression, STATE 12425),
    (sym_named_expression, STATE 7969), (sym__named_expression_lhs, STATE 12752),
    (sym_return_statement, STATE 11814), (sym_delete_statement, STATE 11814),
    (sym_raise_statement, STATE 11814), (sym_pass_statement, STATE 11814),
    (sym_break_statement, STATE 11814), (sym_continue_statement, STATE 11814),
    (sym_extension_definition, STATE 925), (sym_mlir_region, STATE 925),
    (sym_comptime_statement, STATE 925), (sym_if_statement, STATE 925),
    (sym_match_statement, STATE 925), (sym_for_statement, STATE 925),
    (sym_while_statement, STATE 925), (sym_try_statement, STATE 925),
    (sym_with_statement, STATE 925), (sym_function_definition, STATE 925),
    (sym_global_statement, STATE 11814), (sym_nonlocal_statement, STATE 11814),
    (sym_exec_statement, STATE 11814), (sym_type_alias_statement, STATE 11814),
    (sym_parameterized_alias_statement, STATE 11814), (sym_class_definition, STATE 925),
    (sym_trait_definition, STATE 925), (sym_decorated_definition, STATE 925),
    (sym_decorator, STATE 3670), (sym_block, STATE 4613), (sym_pattern, STATE 8086),
    (sym_tuple_pattern, STATE 8101), (sym_list_pattern, STATE 8101),
    (sym_list_splat_pattern, STATE 6819), (sym_as_pattern, STATE 7969),
    (sym_expression, STATE 9883), (sym_primary_expression, STATE 7326),
    (sym_comptime_expression, STATE 7017), (sym_transfer_expression, STATE 7017),
    (sym_not_operator, STATE 7969), (sym_boolean_operator, STATE 7969),
    (sym_binary_operator, STATE 7017), (sym_unary_operator, STATE 7017),
    (sym_comparison_operator, STATE 7969), (sym_lambda, STATE 7969),
    (sym_assignment, STATE 12425), (sym_augmented_assignment, STATE 12425),
    (sym_pattern_list, STATE 8578), (sym_yield, STATE 12425), (sym_attribute, STATE 6836),
    (sym_subscript, STATE 6838), (sym_call, STATE 6845), (sym_mlir_type, STATE 7017),
    (sym_list, STATE 7017), (sym_set, STATE 7017), (sym_tuple, STATE 7017),
    (sym_dictionary, STATE 7017), (sym_struct_literal, STATE 7017),
    (sym_list_comprehension, STATE 7017), (sym_dictionary_comprehension, STATE 7017),
    (sym_set_comprehension, STATE 7017), (sym_generator_expression, STATE 7017),
    (sym_parenthesized_expression, STATE 7017), (sym_conditional_expression, STATE 7969),
    (sym_concatenated_string, STATE 7017), (sym_string, STATE 6751), (sym_await, STATE 7017),
    (aux_sym_module_repeat1, STATE 925), (aux_sym_decorated_definition_repeat1, STATE 3670),
    (sym_identifier, ACTIONS 9), (anon_sym_import, ACTIONS 11), (anon_sym_from, ACTIONS 13),
    (anon_sym_LPAREN, ACTIONS 15), (anon_sym_STAR, ACTIONS 17), (anon_sym_print, ACTIONS 19),
    (anon_sym_comptime, ACTIONS 99), (anon_sym_assert, ACTIONS 23),
    (anon_sym___comptime_assert, ACTIONS 25), (anon_sym_return, ACTIONS 27),
    (anon_sym_del, ACTIONS 29), (anon_sym_raise, ACTIONS 31), (anon_sym_pass, ACTIONS 33),
    (anon_sym_break, ACTIONS 35), (anon_sym_continue, ACTIONS 37),
    (anon_sym___extension, ACTIONS 101), (anon_sym___mlir_region, ACTIONS 103),
    (anon_sym_if, ACTIONS 105), (anon_sym_match, ACTIONS 107), (anon_sym_async, ACTIONS 109),
    (anon_sym_for, ACTIONS 111), (anon_sym_while, ACTIONS 113), (anon_sym_try, ACTIONS 115),
    (anon_sym_with, ACTIONS 117), (anon_sym_def, ACTIONS 119), (anon_sym_fn, ACTIONS 119),
    (anon_sym_LBRACK, ACTIONS 59), (anon_sym_LBRACE, ACTIONS 61), (anon_sym_global, ACTIONS 63),
    (anon_sym_nonlocal, ACTIONS 65), (anon_sym_exec, ACTIONS 67), (anon_sym_type, ACTIONS 69),
    (anon_sym_class, ACTIONS 121), (anon_sym_struct, ACTIONS 121), (anon_sym_mut, ACTIONS 73),
    (anon_sym_out, ACTIONS 73), (anon_sym_trait, ACTIONS 123), (anon_sym_AT, ACTIONS 77),
    (anon_sym_DASH, ACTIONS 79), (anon_sym_PLUS, ACTIONS 79), (anon_sym_ref, ACTIONS 81),
    (anon_sym_var, ACTIONS 81), (anon_sym_not, ACTIONS 83), (anon_sym_TILDE, ACTIONS 79),
    (anon_sym_lambda, ACTIONS 85), (anon_sym_yield, ACTIONS 87), (sym_ellipsis, ACTIONS 89),
    (anon_sym___mlir_type, ACTIONS 91), (sym_integer, ACTIONS 93), (sym_float, ACTIONS 89),
    (anon_sym_await, ACTIONS 95), (sym_true, ACTIONS 93), (sym_false, ACTIONS 93),
    (sym_none, ACTIONS 93), (sym_comment, ACTIONS 3), (sym_line_continuation, ACTIONS 3),
    (sym__dedent, ACTIONS 129), (sym_string_start, ACTIONS 97)]"

definition parse_table_89 :: "(nat \<times> nat) list" where "parse_table_89 = [
    (sym__statement, STATE 925), (sym__simple_statements, STATE 925),
    (sym_import_statement, STATE 11814), (sym_future_import_statement, STATE 11814),
    (sym_import_from_statement, STATE 11814), (sym_print_statement, STATE 11814),
    (sym_assert_statement, STATE 11814), (sym_comptime_assert_statement, STATE 11814),
    (sym_expression_statement, STATE 11814), (sym_tuple_expression, STATE 12425),
    (sym_named_expression, STATE 7969), (sym__named_expression_lhs, STATE 12752),
    (sym_return_statement, STATE 11814), (sym_delete_statement, STATE 11814),
    (sym_raise_statement, STATE 11814), (sym_pass_statement, STATE 11814),
    (sym_break_statement, STATE 11814), (sym_continue_statement, STATE 11814),
    (sym_extension_definition, STATE 925), (sym_mlir_region, STATE 925),
    (sym_comptime_statement, STATE 925), (sym_if_statement, STATE 925),
    (sym_match_statement, STATE 925), (sym_for_statement, STATE 925),
    (sym_while_statement, STATE 925), (sym_try_statement, STATE 925),
    (sym_with_statement, STATE 925), (sym_function_definition, STATE 925),
    (sym_global_statement, STATE 11814), (sym_nonlocal_statement, STATE 11814),
    (sym_exec_statement, STATE 11814), (sym_type_alias_statement, STATE 11814),
    (sym_parameterized_alias_statement, STATE 11814), (sym_class_definition, STATE 925),
    (sym_trait_definition, STATE 925), (sym_decorated_definition, STATE 925),
    (sym_decorator, STATE 3670), (sym_block, STATE 4616), (sym_pattern, STATE 8086),
    (sym_tuple_pattern, STATE 8101), (sym_list_pattern, STATE 8101),
    (sym_list_splat_pattern, STATE 6819), (sym_as_pattern, STATE 7969),
    (sym_expression, STATE 9883), (sym_primary_expression, STATE 7326),
    (sym_comptime_expression, STATE 7017), (sym_transfer_expression, STATE 7017),
    (sym_not_operator, STATE 7969), (sym_boolean_operator, STATE 7969),
    (sym_binary_operator, STATE 7017), (sym_unary_operator, STATE 7017),
    (sym_comparison_operator, STATE 7969), (sym_lambda, STATE 7969),
    (sym_assignment, STATE 12425), (sym_augmented_assignment, STATE 12425),
    (sym_pattern_list, STATE 8578), (sym_yield, STATE 12425), (sym_attribute, STATE 6836),
    (sym_subscript, STATE 6838), (sym_call, STATE 6845), (sym_mlir_type, STATE 7017),
    (sym_list, STATE 7017), (sym_set, STATE 7017), (sym_tuple, STATE 7017),
    (sym_dictionary, STATE 7017), (sym_struct_literal, STATE 7017),
    (sym_list_comprehension, STATE 7017), (sym_dictionary_comprehension, STATE 7017),
    (sym_set_comprehension, STATE 7017), (sym_generator_expression, STATE 7017),
    (sym_parenthesized_expression, STATE 7017), (sym_conditional_expression, STATE 7969),
    (sym_concatenated_string, STATE 7017), (sym_string, STATE 6751), (sym_await, STATE 7017),
    (aux_sym_module_repeat1, STATE 925), (aux_sym_decorated_definition_repeat1, STATE 3670),
    (sym_identifier, ACTIONS 9), (anon_sym_import, ACTIONS 11), (anon_sym_from, ACTIONS 13),
    (anon_sym_LPAREN, ACTIONS 15), (anon_sym_STAR, ACTIONS 17), (anon_sym_print, ACTIONS 19),
    (anon_sym_comptime, ACTIONS 99), (anon_sym_assert, ACTIONS 23),
    (anon_sym___comptime_assert, ACTIONS 25), (anon_sym_return, ACTIONS 27),
    (anon_sym_del, ACTIONS 29), (anon_sym_raise, ACTIONS 31), (anon_sym_pass, ACTIONS 33),
    (anon_sym_break, ACTIONS 35), (anon_sym_continue, ACTIONS 37),
    (anon_sym___extension, ACTIONS 101), (anon_sym___mlir_region, ACTIONS 103),
    (anon_sym_if, ACTIONS 105), (anon_sym_match, ACTIONS 107), (anon_sym_async, ACTIONS 109),
    (anon_sym_for, ACTIONS 111), (anon_sym_while, ACTIONS 113), (anon_sym_try, ACTIONS 115),
    (anon_sym_with, ACTIONS 117), (anon_sym_def, ACTIONS 119), (anon_sym_fn, ACTIONS 119),
    (anon_sym_LBRACK, ACTIONS 59), (anon_sym_LBRACE, ACTIONS 61), (anon_sym_global, ACTIONS 63),
    (anon_sym_nonlocal, ACTIONS 65), (anon_sym_exec, ACTIONS 67), (anon_sym_type, ACTIONS 69),
    (anon_sym_class, ACTIONS 121), (anon_sym_struct, ACTIONS 121), (anon_sym_mut, ACTIONS 73),
    (anon_sym_out, ACTIONS 73), (anon_sym_trait, ACTIONS 123), (anon_sym_AT, ACTIONS 77),
    (anon_sym_DASH, ACTIONS 79), (anon_sym_PLUS, ACTIONS 79), (anon_sym_ref, ACTIONS 81),
    (anon_sym_var, ACTIONS 81), (anon_sym_not, ACTIONS 83), (anon_sym_TILDE, ACTIONS 79),
    (anon_sym_lambda, ACTIONS 85), (anon_sym_yield, ACTIONS 87), (sym_ellipsis, ACTIONS 89),
    (anon_sym___mlir_type, ACTIONS 91), (sym_integer, ACTIONS 93), (sym_float, ACTIONS 89),
    (anon_sym_await, ACTIONS 95), (sym_true, ACTIONS 93), (sym_false, ACTIONS 93),
    (sym_none, ACTIONS 93), (sym_comment, ACTIONS 3), (sym_line_continuation, ACTIONS 3),
    (sym__dedent, ACTIONS 129), (sym_string_start, ACTIONS 97)]"

definition parse_table_90 :: "(nat \<times> nat) list" where "parse_table_90 = [
    (sym__statement, STATE 925), (sym__simple_statements, STATE 925),
    (sym_import_statement, STATE 11814), (sym_future_import_statement, STATE 11814),
    (sym_import_from_statement, STATE 11814), (sym_print_statement, STATE 11814),
    (sym_assert_statement, STATE 11814), (sym_comptime_assert_statement, STATE 11814),
    (sym_expression_statement, STATE 11814), (sym_tuple_expression, STATE 12425),
    (sym_named_expression, STATE 7969), (sym__named_expression_lhs, STATE 12752),
    (sym_return_statement, STATE 11814), (sym_delete_statement, STATE 11814),
    (sym_raise_statement, STATE 11814), (sym_pass_statement, STATE 11814),
    (sym_break_statement, STATE 11814), (sym_continue_statement, STATE 11814),
    (sym_extension_definition, STATE 925), (sym_mlir_region, STATE 925),
    (sym_comptime_statement, STATE 925), (sym_if_statement, STATE 925),
    (sym_match_statement, STATE 925), (sym_for_statement, STATE 925),
    (sym_while_statement, STATE 925), (sym_try_statement, STATE 925),
    (sym_with_statement, STATE 925), (sym_function_definition, STATE 925),
    (sym_global_statement, STATE 11814), (sym_nonlocal_statement, STATE 11814),
    (sym_exec_statement, STATE 11814), (sym_type_alias_statement, STATE 11814),
    (sym_parameterized_alias_statement, STATE 11814), (sym_class_definition, STATE 925),
    (sym_trait_definition, STATE 925), (sym_decorated_definition, STATE 925),
    (sym_decorator, STATE 3670), (sym_block, STATE 4677), (sym_pattern, STATE 8086),
    (sym_tuple_pattern, STATE 8101), (sym_list_pattern, STATE 8101),
    (sym_list_splat_pattern, STATE 6819), (sym_as_pattern, STATE 7969),
    (sym_expression, STATE 9883), (sym_primary_expression, STATE 7326),
    (sym_comptime_expression, STATE 7017), (sym_transfer_expression, STATE 7017),
    (sym_not_operator, STATE 7969), (sym_boolean_operator, STATE 7969),
    (sym_binary_operator, STATE 7017), (sym_unary_operator, STATE 7017),
    (sym_comparison_operator, STATE 7969), (sym_lambda, STATE 7969),
    (sym_assignment, STATE 12425), (sym_augmented_assignment, STATE 12425),
    (sym_pattern_list, STATE 8578), (sym_yield, STATE 12425), (sym_attribute, STATE 6836),
    (sym_subscript, STATE 6838), (sym_call, STATE 6845), (sym_mlir_type, STATE 7017),
    (sym_list, STATE 7017), (sym_set, STATE 7017), (sym_tuple, STATE 7017),
    (sym_dictionary, STATE 7017), (sym_struct_literal, STATE 7017),
    (sym_list_comprehension, STATE 7017), (sym_dictionary_comprehension, STATE 7017),
    (sym_set_comprehension, STATE 7017), (sym_generator_expression, STATE 7017),
    (sym_parenthesized_expression, STATE 7017), (sym_conditional_expression, STATE 7969),
    (sym_concatenated_string, STATE 7017), (sym_string, STATE 6751), (sym_await, STATE 7017),
    (aux_sym_module_repeat1, STATE 925), (aux_sym_decorated_definition_repeat1, STATE 3670),
    (sym_identifier, ACTIONS 9), (anon_sym_import, ACTIONS 11), (anon_sym_from, ACTIONS 13),
    (anon_sym_LPAREN, ACTIONS 15), (anon_sym_STAR, ACTIONS 17), (anon_sym_print, ACTIONS 19),
    (anon_sym_comptime, ACTIONS 99), (anon_sym_assert, ACTIONS 23),
    (anon_sym___comptime_assert, ACTIONS 25), (anon_sym_return, ACTIONS 27),
    (anon_sym_del, ACTIONS 29), (anon_sym_raise, ACTIONS 31), (anon_sym_pass, ACTIONS 33),
    (anon_sym_break, ACTIONS 35), (anon_sym_continue, ACTIONS 37),
    (anon_sym___extension, ACTIONS 101), (anon_sym___mlir_region, ACTIONS 103),
    (anon_sym_if, ACTIONS 105), (anon_sym_match, ACTIONS 107), (anon_sym_async, ACTIONS 109),
    (anon_sym_for, ACTIONS 111), (anon_sym_while, ACTIONS 113), (anon_sym_try, ACTIONS 115),
    (anon_sym_with, ACTIONS 117), (anon_sym_def, ACTIONS 119), (anon_sym_fn, ACTIONS 119),
    (anon_sym_LBRACK, ACTIONS 59), (anon_sym_LBRACE, ACTIONS 61), (anon_sym_global, ACTIONS 63),
    (anon_sym_nonlocal, ACTIONS 65), (anon_sym_exec, ACTIONS 67), (anon_sym_type, ACTIONS 69),
    (anon_sym_class, ACTIONS 121), (anon_sym_struct, ACTIONS 121), (anon_sym_mut, ACTIONS 73),
    (anon_sym_out, ACTIONS 73), (anon_sym_trait, ACTIONS 123), (anon_sym_AT, ACTIONS 77),
    (anon_sym_DASH, ACTIONS 79), (anon_sym_PLUS, ACTIONS 79), (anon_sym_ref, ACTIONS 81),
    (anon_sym_var, ACTIONS 81), (anon_sym_not, ACTIONS 83), (anon_sym_TILDE, ACTIONS 79),
    (anon_sym_lambda, ACTIONS 85), (anon_sym_yield, ACTIONS 87), (sym_ellipsis, ACTIONS 89),
    (anon_sym___mlir_type, ACTIONS 91), (sym_integer, ACTIONS 93), (sym_float, ACTIONS 89),
    (anon_sym_await, ACTIONS 95), (sym_true, ACTIONS 93), (sym_false, ACTIONS 93),
    (sym_none, ACTIONS 93), (sym_comment, ACTIONS 3), (sym_line_continuation, ACTIONS 3),
    (sym__dedent, ACTIONS 129), (sym_string_start, ACTIONS 97)]"

definition parse_table_91 :: "(nat \<times> nat) list" where "parse_table_91 = [
    (sym__statement, STATE 925), (sym__simple_statements, STATE 925),
    (sym_import_statement, STATE 11814), (sym_future_import_statement, STATE 11814),
    (sym_import_from_statement, STATE 11814), (sym_print_statement, STATE 11814),
    (sym_assert_statement, STATE 11814), (sym_comptime_assert_statement, STATE 11814),
    (sym_expression_statement, STATE 11814), (sym_tuple_expression, STATE 12425),
    (sym_named_expression, STATE 7969), (sym__named_expression_lhs, STATE 12752),
    (sym_return_statement, STATE 11814), (sym_delete_statement, STATE 11814),
    (sym_raise_statement, STATE 11814), (sym_pass_statement, STATE 11814),
    (sym_break_statement, STATE 11814), (sym_continue_statement, STATE 11814),
    (sym_extension_definition, STATE 925), (sym_mlir_region, STATE 925),
    (sym_comptime_statement, STATE 925), (sym_if_statement, STATE 925),
    (sym_match_statement, STATE 925), (sym_for_statement, STATE 925),
    (sym_while_statement, STATE 925), (sym_try_statement, STATE 925),
    (sym_with_statement, STATE 925), (sym_function_definition, STATE 925),
    (sym_global_statement, STATE 11814), (sym_nonlocal_statement, STATE 11814),
    (sym_exec_statement, STATE 11814), (sym_type_alias_statement, STATE 11814),
    (sym_parameterized_alias_statement, STATE 11814), (sym_class_definition, STATE 925),
    (sym_trait_definition, STATE 925), (sym_decorated_definition, STATE 925),
    (sym_decorator, STATE 3670), (sym_block, STATE 4681), (sym_pattern, STATE 8086),
    (sym_tuple_pattern, STATE 8101), (sym_list_pattern, STATE 8101),
    (sym_list_splat_pattern, STATE 6819), (sym_as_pattern, STATE 7969),
    (sym_expression, STATE 9883), (sym_primary_expression, STATE 7326),
    (sym_comptime_expression, STATE 7017), (sym_transfer_expression, STATE 7017),
    (sym_not_operator, STATE 7969), (sym_boolean_operator, STATE 7969),
    (sym_binary_operator, STATE 7017), (sym_unary_operator, STATE 7017),
    (sym_comparison_operator, STATE 7969), (sym_lambda, STATE 7969),
    (sym_assignment, STATE 12425), (sym_augmented_assignment, STATE 12425),
    (sym_pattern_list, STATE 8578), (sym_yield, STATE 12425), (sym_attribute, STATE 6836),
    (sym_subscript, STATE 6838), (sym_call, STATE 6845), (sym_mlir_type, STATE 7017),
    (sym_list, STATE 7017), (sym_set, STATE 7017), (sym_tuple, STATE 7017),
    (sym_dictionary, STATE 7017), (sym_struct_literal, STATE 7017),
    (sym_list_comprehension, STATE 7017), (sym_dictionary_comprehension, STATE 7017),
    (sym_set_comprehension, STATE 7017), (sym_generator_expression, STATE 7017),
    (sym_parenthesized_expression, STATE 7017), (sym_conditional_expression, STATE 7969),
    (sym_concatenated_string, STATE 7017), (sym_string, STATE 6751), (sym_await, STATE 7017),
    (aux_sym_module_repeat1, STATE 925), (aux_sym_decorated_definition_repeat1, STATE 3670),
    (sym_identifier, ACTIONS 9), (anon_sym_import, ACTIONS 11), (anon_sym_from, ACTIONS 13),
    (anon_sym_LPAREN, ACTIONS 15), (anon_sym_STAR, ACTIONS 17), (anon_sym_print, ACTIONS 19),
    (anon_sym_comptime, ACTIONS 99), (anon_sym_assert, ACTIONS 23),
    (anon_sym___comptime_assert, ACTIONS 25), (anon_sym_return, ACTIONS 27),
    (anon_sym_del, ACTIONS 29), (anon_sym_raise, ACTIONS 31), (anon_sym_pass, ACTIONS 33),
    (anon_sym_break, ACTIONS 35), (anon_sym_continue, ACTIONS 37),
    (anon_sym___extension, ACTIONS 101), (anon_sym___mlir_region, ACTIONS 103),
    (anon_sym_if, ACTIONS 105), (anon_sym_match, ACTIONS 107), (anon_sym_async, ACTIONS 109),
    (anon_sym_for, ACTIONS 111), (anon_sym_while, ACTIONS 113), (anon_sym_try, ACTIONS 115),
    (anon_sym_with, ACTIONS 117), (anon_sym_def, ACTIONS 119), (anon_sym_fn, ACTIONS 119),
    (anon_sym_LBRACK, ACTIONS 59), (anon_sym_LBRACE, ACTIONS 61), (anon_sym_global, ACTIONS 63),
    (anon_sym_nonlocal, ACTIONS 65), (anon_sym_exec, ACTIONS 67), (anon_sym_type, ACTIONS 69),
    (anon_sym_class, ACTIONS 121), (anon_sym_struct, ACTIONS 121), (anon_sym_mut, ACTIONS 73),
    (anon_sym_out, ACTIONS 73), (anon_sym_trait, ACTIONS 123), (anon_sym_AT, ACTIONS 77),
    (anon_sym_DASH, ACTIONS 79), (anon_sym_PLUS, ACTIONS 79), (anon_sym_ref, ACTIONS 81),
    (anon_sym_var, ACTIONS 81), (anon_sym_not, ACTIONS 83), (anon_sym_TILDE, ACTIONS 79),
    (anon_sym_lambda, ACTIONS 85), (anon_sym_yield, ACTIONS 87), (sym_ellipsis, ACTIONS 89),
    (anon_sym___mlir_type, ACTIONS 91), (sym_integer, ACTIONS 93), (sym_float, ACTIONS 89),
    (anon_sym_await, ACTIONS 95), (sym_true, ACTIONS 93), (sym_false, ACTIONS 93),
    (sym_none, ACTIONS 93), (sym_comment, ACTIONS 3), (sym_line_continuation, ACTIONS 3),
    (sym__dedent, ACTIONS 129), (sym_string_start, ACTIONS 97)]"

definition parse_table_92 :: "(nat \<times> nat) list" where "parse_table_92 = [
    (sym__statement, STATE 928), (sym__simple_statements, STATE 928),
    (sym_import_statement, STATE 11814), (sym_future_import_statement, STATE 11814),
    (sym_import_from_statement, STATE 11814), (sym_print_statement, STATE 11814),
    (sym_assert_statement, STATE 11814), (sym_comptime_assert_statement, STATE 11814),
    (sym_expression_statement, STATE 11814), (sym_tuple_expression, STATE 12425),
    (sym_named_expression, STATE 7969), (sym__named_expression_lhs, STATE 12752),
    (sym_return_statement, STATE 11814), (sym_delete_statement, STATE 11814),
    (sym_raise_statement, STATE 11814), (sym_pass_statement, STATE 11814),
    (sym_break_statement, STATE 11814), (sym_continue_statement, STATE 11814),
    (sym_extension_definition, STATE 928), (sym_mlir_region, STATE 928),
    (sym_comptime_statement, STATE 928), (sym_if_statement, STATE 928),
    (sym_match_statement, STATE 928), (sym_for_statement, STATE 928),
    (sym_while_statement, STATE 928), (sym_try_statement, STATE 928),
    (sym_with_statement, STATE 928), (sym_function_definition, STATE 928),
    (sym_global_statement, STATE 11814), (sym_nonlocal_statement, STATE 11814),
    (sym_exec_statement, STATE 11814), (sym_type_alias_statement, STATE 11814),
    (sym_parameterized_alias_statement, STATE 11814), (sym_class_definition, STATE 928),
    (sym_trait_definition, STATE 928), (sym_decorated_definition, STATE 928),
    (sym_decorator, STATE 3670), (sym_block, STATE 12362), (sym_pattern, STATE 8086),
    (sym_tuple_pattern, STATE 8101), (sym_list_pattern, STATE 8101),
    (sym_list_splat_pattern, STATE 6819), (sym_as_pattern, STATE 7969),
    (sym_expression, STATE 9883), (sym_primary_expression, STATE 7326),
    (sym_comptime_expression, STATE 7017), (sym_transfer_expression, STATE 7017),
    (sym_not_operator, STATE 7969), (sym_boolean_operator, STATE 7969),
    (sym_binary_operator, STATE 7017), (sym_unary_operator, STATE 7017),
    (sym_comparison_operator, STATE 7969), (sym_lambda, STATE 7969),
    (sym_assignment, STATE 12425), (sym_augmented_assignment, STATE 12425),
    (sym_pattern_list, STATE 8578), (sym_yield, STATE 12425), (sym_attribute, STATE 6836),
    (sym_subscript, STATE 6838), (sym_call, STATE 6845), (sym_mlir_type, STATE 7017),
    (sym_list, STATE 7017), (sym_set, STATE 7017), (sym_tuple, STATE 7017),
    (sym_dictionary, STATE 7017), (sym_struct_literal, STATE 7017),
    (sym_list_comprehension, STATE 7017), (sym_dictionary_comprehension, STATE 7017),
    (sym_set_comprehension, STATE 7017), (sym_generator_expression, STATE 7017),
    (sym_parenthesized_expression, STATE 7017), (sym_conditional_expression, STATE 7969),
    (sym_concatenated_string, STATE 7017), (sym_string, STATE 6751), (sym_await, STATE 7017),
    (aux_sym_module_repeat1, STATE 928), (aux_sym_decorated_definition_repeat1, STATE 3670),
    (sym_identifier, ACTIONS 9), (anon_sym_import, ACTIONS 11), (anon_sym_from, ACTIONS 13),
    (anon_sym_LPAREN, ACTIONS 15), (anon_sym_STAR, ACTIONS 17), (anon_sym_print, ACTIONS 19),
    (anon_sym_comptime, ACTIONS 99), (anon_sym_assert, ACTIONS 23),
    (anon_sym___comptime_assert, ACTIONS 25), (anon_sym_return, ACTIONS 27),
    (anon_sym_del, ACTIONS 29), (anon_sym_raise, ACTIONS 31), (anon_sym_pass, ACTIONS 33),
    (anon_sym_break, ACTIONS 35), (anon_sym_continue, ACTIONS 37),
    (anon_sym___extension, ACTIONS 101), (anon_sym___mlir_region, ACTIONS 103),
    (anon_sym_if, ACTIONS 105), (anon_sym_match, ACTIONS 107), (anon_sym_async, ACTIONS 109),
    (anon_sym_for, ACTIONS 111), (anon_sym_while, ACTIONS 113), (anon_sym_try, ACTIONS 115),
    (anon_sym_with, ACTIONS 117), (anon_sym_def, ACTIONS 119), (anon_sym_fn, ACTIONS 119),
    (anon_sym_LBRACK, ACTIONS 59), (anon_sym_LBRACE, ACTIONS 61), (anon_sym_global, ACTIONS 63),
    (anon_sym_nonlocal, ACTIONS 65), (anon_sym_exec, ACTIONS 67), (anon_sym_type, ACTIONS 69),
    (anon_sym_class, ACTIONS 121), (anon_sym_struct, ACTIONS 121), (anon_sym_mut, ACTIONS 73),
    (anon_sym_out, ACTIONS 73), (anon_sym_trait, ACTIONS 123), (anon_sym_AT, ACTIONS 77),
    (anon_sym_DASH, ACTIONS 79), (anon_sym_PLUS, ACTIONS 79), (anon_sym_ref, ACTIONS 81),
    (anon_sym_var, ACTIONS 81), (anon_sym_not, ACTIONS 83), (anon_sym_TILDE, ACTIONS 79),
    (anon_sym_lambda, ACTIONS 85), (anon_sym_yield, ACTIONS 87), (sym_ellipsis, ACTIONS 89),
    (anon_sym___mlir_type, ACTIONS 91), (sym_integer, ACTIONS 93), (sym_float, ACTIONS 89),
    (anon_sym_await, ACTIONS 95), (sym_true, ACTIONS 93), (sym_false, ACTIONS 93),
    (sym_none, ACTIONS 93), (sym_comment, ACTIONS 3), (sym_line_continuation, ACTIONS 3),
    (sym__dedent, ACTIONS 133), (sym_string_start, ACTIONS 97)]"

definition parse_table_93 :: "(nat \<times> nat) list" where "parse_table_93 = [
    (sym__statement, STATE 928), (sym__simple_statements, STATE 928),
    (sym_import_statement, STATE 11814), (sym_future_import_statement, STATE 11814),
    (sym_import_from_statement, STATE 11814), (sym_print_statement, STATE 11814),
    (sym_assert_statement, STATE 11814), (sym_comptime_assert_statement, STATE 11814),
    (sym_expression_statement, STATE 11814), (sym_tuple_expression, STATE 12425),
    (sym_named_expression, STATE 7969), (sym__named_expression_lhs, STATE 12752),
    (sym_return_statement, STATE 11814), (sym_delete_statement, STATE 11814),
    (sym_raise_statement, STATE 11814), (sym_pass_statement, STATE 11814),
    (sym_break_statement, STATE 11814), (sym_continue_statement, STATE 11814),
    (sym_extension_definition, STATE 928), (sym_mlir_region, STATE 928),
    (sym_comptime_statement, STATE 928), (sym_if_statement, STATE 928),
    (sym_match_statement, STATE 928), (sym_for_statement, STATE 928),
    (sym_while_statement, STATE 928), (sym_try_statement, STATE 928),
    (sym_with_statement, STATE 928), (sym_function_definition, STATE 928),
    (sym_global_statement, STATE 11814), (sym_nonlocal_statement, STATE 11814),
    (sym_exec_statement, STATE 11814), (sym_type_alias_statement, STATE 11814),
    (sym_parameterized_alias_statement, STATE 11814), (sym_class_definition, STATE 928),
    (sym_trait_definition, STATE 928), (sym_decorated_definition, STATE 928),
    (sym_decorator, STATE 3670), (sym_block, STATE 12439), (sym_pattern, STATE 8086),
    (sym_tuple_pattern, STATE 8101), (sym_list_pattern, STATE 8101),
    (sym_list_splat_pattern, STATE 6819), (sym_as_pattern, STATE 7969),
    (sym_expression, STATE 9883), (sym_primary_expression, STATE 7326),
    (sym_comptime_expression, STATE 7017), (sym_transfer_expression, STATE 7017),
    (sym_not_operator, STATE 7969), (sym_boolean_operator, STATE 7969),
    (sym_binary_operator, STATE 7017), (sym_unary_operator, STATE 7017),
    (sym_comparison_operator, STATE 7969), (sym_lambda, STATE 7969),
    (sym_assignment, STATE 12425), (sym_augmented_assignment, STATE 12425),
    (sym_pattern_list, STATE 8578), (sym_yield, STATE 12425), (sym_attribute, STATE 6836),
    (sym_subscript, STATE 6838), (sym_call, STATE 6845), (sym_mlir_type, STATE 7017),
    (sym_list, STATE 7017), (sym_set, STATE 7017), (sym_tuple, STATE 7017),
    (sym_dictionary, STATE 7017), (sym_struct_literal, STATE 7017),
    (sym_list_comprehension, STATE 7017), (sym_dictionary_comprehension, STATE 7017),
    (sym_set_comprehension, STATE 7017), (sym_generator_expression, STATE 7017),
    (sym_parenthesized_expression, STATE 7017), (sym_conditional_expression, STATE 7969),
    (sym_concatenated_string, STATE 7017), (sym_string, STATE 6751), (sym_await, STATE 7017),
    (aux_sym_module_repeat1, STATE 928), (aux_sym_decorated_definition_repeat1, STATE 3670),
    (sym_identifier, ACTIONS 9), (anon_sym_import, ACTIONS 11), (anon_sym_from, ACTIONS 13),
    (anon_sym_LPAREN, ACTIONS 15), (anon_sym_STAR, ACTIONS 17), (anon_sym_print, ACTIONS 19),
    (anon_sym_comptime, ACTIONS 99), (anon_sym_assert, ACTIONS 23),
    (anon_sym___comptime_assert, ACTIONS 25), (anon_sym_return, ACTIONS 27),
    (anon_sym_del, ACTIONS 29), (anon_sym_raise, ACTIONS 31), (anon_sym_pass, ACTIONS 33),
    (anon_sym_break, ACTIONS 35), (anon_sym_continue, ACTIONS 37),
    (anon_sym___extension, ACTIONS 101), (anon_sym___mlir_region, ACTIONS 103),
    (anon_sym_if, ACTIONS 105), (anon_sym_match, ACTIONS 107), (anon_sym_async, ACTIONS 109),
    (anon_sym_for, ACTIONS 111), (anon_sym_while, ACTIONS 113), (anon_sym_try, ACTIONS 115),
    (anon_sym_with, ACTIONS 117), (anon_sym_def, ACTIONS 119), (anon_sym_fn, ACTIONS 119),
    (anon_sym_LBRACK, ACTIONS 59), (anon_sym_LBRACE, ACTIONS 61), (anon_sym_global, ACTIONS 63),
    (anon_sym_nonlocal, ACTIONS 65), (anon_sym_exec, ACTIONS 67), (anon_sym_type, ACTIONS 69),
    (anon_sym_class, ACTIONS 121), (anon_sym_struct, ACTIONS 121), (anon_sym_mut, ACTIONS 73),
    (anon_sym_out, ACTIONS 73), (anon_sym_trait, ACTIONS 123), (anon_sym_AT, ACTIONS 77),
    (anon_sym_DASH, ACTIONS 79), (anon_sym_PLUS, ACTIONS 79), (anon_sym_ref, ACTIONS 81),
    (anon_sym_var, ACTIONS 81), (anon_sym_not, ACTIONS 83), (anon_sym_TILDE, ACTIONS 79),
    (anon_sym_lambda, ACTIONS 85), (anon_sym_yield, ACTIONS 87), (sym_ellipsis, ACTIONS 89),
    (anon_sym___mlir_type, ACTIONS 91), (sym_integer, ACTIONS 93), (sym_float, ACTIONS 89),
    (anon_sym_await, ACTIONS 95), (sym_true, ACTIONS 93), (sym_false, ACTIONS 93),
    (sym_none, ACTIONS 93), (sym_comment, ACTIONS 3), (sym_line_continuation, ACTIONS 3),
    (sym__dedent, ACTIONS 133), (sym_string_start, ACTIONS 97)]"

definition parse_table_94 :: "(nat \<times> nat) list" where "parse_table_94 = [
    (sym__statement, STATE 925), (sym__simple_statements, STATE 925),
    (sym_import_statement, STATE 11814), (sym_future_import_statement, STATE 11814),
    (sym_import_from_statement, STATE 11814), (sym_print_statement, STATE 11814),
    (sym_assert_statement, STATE 11814), (sym_comptime_assert_statement, STATE 11814),
    (sym_expression_statement, STATE 11814), (sym_tuple_expression, STATE 12425),
    (sym_named_expression, STATE 7969), (sym__named_expression_lhs, STATE 12752),
    (sym_return_statement, STATE 11814), (sym_delete_statement, STATE 11814),
    (sym_raise_statement, STATE 11814), (sym_pass_statement, STATE 11814),
    (sym_break_statement, STATE 11814), (sym_continue_statement, STATE 11814),
    (sym_extension_definition, STATE 925), (sym_mlir_region, STATE 925),
    (sym_comptime_statement, STATE 925), (sym_if_statement, STATE 925),
    (sym_match_statement, STATE 925), (sym_for_statement, STATE 925),
    (sym_while_statement, STATE 925), (sym_try_statement, STATE 925),
    (sym_with_statement, STATE 925), (sym_function_definition, STATE 925),
    (sym_global_statement, STATE 11814), (sym_nonlocal_statement, STATE 11814),
    (sym_exec_statement, STATE 11814), (sym_type_alias_statement, STATE 11814),
    (sym_parameterized_alias_statement, STATE 11814), (sym_class_definition, STATE 925),
    (sym_trait_definition, STATE 925), (sym_decorated_definition, STATE 925),
    (sym_decorator, STATE 3670), (sym_block, STATE 5168), (sym_pattern, STATE 8086),
    (sym_tuple_pattern, STATE 8101), (sym_list_pattern, STATE 8101),
    (sym_list_splat_pattern, STATE 6819), (sym_as_pattern, STATE 7969),
    (sym_expression, STATE 9883), (sym_primary_expression, STATE 7326),
    (sym_comptime_expression, STATE 7017), (sym_transfer_expression, STATE 7017),
    (sym_not_operator, STATE 7969), (sym_boolean_operator, STATE 7969),
    (sym_binary_operator, STATE 7017), (sym_unary_operator, STATE 7017),
    (sym_comparison_operator, STATE 7969), (sym_lambda, STATE 7969),
    (sym_assignment, STATE 12425), (sym_augmented_assignment, STATE 12425),
    (sym_pattern_list, STATE 8578), (sym_yield, STATE 12425), (sym_attribute, STATE 6836),
    (sym_subscript, STATE 6838), (sym_call, STATE 6845), (sym_mlir_type, STATE 7017),
    (sym_list, STATE 7017), (sym_set, STATE 7017), (sym_tuple, STATE 7017),
    (sym_dictionary, STATE 7017), (sym_struct_literal, STATE 7017),
    (sym_list_comprehension, STATE 7017), (sym_dictionary_comprehension, STATE 7017),
    (sym_set_comprehension, STATE 7017), (sym_generator_expression, STATE 7017),
    (sym_parenthesized_expression, STATE 7017), (sym_conditional_expression, STATE 7969),
    (sym_concatenated_string, STATE 7017), (sym_string, STATE 6751), (sym_await, STATE 7017),
    (aux_sym_module_repeat1, STATE 925), (aux_sym_decorated_definition_repeat1, STATE 3670),
    (sym_identifier, ACTIONS 9), (anon_sym_import, ACTIONS 11), (anon_sym_from, ACTIONS 13),
    (anon_sym_LPAREN, ACTIONS 15), (anon_sym_STAR, ACTIONS 17), (anon_sym_print, ACTIONS 19),
    (anon_sym_comptime, ACTIONS 99), (anon_sym_assert, ACTIONS 23),
    (anon_sym___comptime_assert, ACTIONS 25), (anon_sym_return, ACTIONS 27),
    (anon_sym_del, ACTIONS 29), (anon_sym_raise, ACTIONS 31), (anon_sym_pass, ACTIONS 33),
    (anon_sym_break, ACTIONS 35), (anon_sym_continue, ACTIONS 37),
    (anon_sym___extension, ACTIONS 101), (anon_sym___mlir_region, ACTIONS 103),
    (anon_sym_if, ACTIONS 105), (anon_sym_match, ACTIONS 107), (anon_sym_async, ACTIONS 109),
    (anon_sym_for, ACTIONS 111), (anon_sym_while, ACTIONS 113), (anon_sym_try, ACTIONS 115),
    (anon_sym_with, ACTIONS 117), (anon_sym_def, ACTIONS 119), (anon_sym_fn, ACTIONS 119),
    (anon_sym_LBRACK, ACTIONS 59), (anon_sym_LBRACE, ACTIONS 61), (anon_sym_global, ACTIONS 63),
    (anon_sym_nonlocal, ACTIONS 65), (anon_sym_exec, ACTIONS 67), (anon_sym_type, ACTIONS 69),
    (anon_sym_class, ACTIONS 121), (anon_sym_struct, ACTIONS 121), (anon_sym_mut, ACTIONS 73),
    (anon_sym_out, ACTIONS 73), (anon_sym_trait, ACTIONS 123), (anon_sym_AT, ACTIONS 77),
    (anon_sym_DASH, ACTIONS 79), (anon_sym_PLUS, ACTIONS 79), (anon_sym_ref, ACTIONS 81),
    (anon_sym_var, ACTIONS 81), (anon_sym_not, ACTIONS 83), (anon_sym_TILDE, ACTIONS 79),
    (anon_sym_lambda, ACTIONS 85), (anon_sym_yield, ACTIONS 87), (sym_ellipsis, ACTIONS 89),
    (anon_sym___mlir_type, ACTIONS 91), (sym_integer, ACTIONS 93), (sym_float, ACTIONS 89),
    (anon_sym_await, ACTIONS 95), (sym_true, ACTIONS 93), (sym_false, ACTIONS 93),
    (sym_none, ACTIONS 93), (sym_comment, ACTIONS 3), (sym_line_continuation, ACTIONS 3),
    (sym__dedent, ACTIONS 129), (sym_string_start, ACTIONS 97)]"

definition parse_table_95 :: "(nat \<times> nat) list" where "parse_table_95 = [
    (sym__statement, STATE 925), (sym__simple_statements, STATE 925),
    (sym_import_statement, STATE 11814), (sym_future_import_statement, STATE 11814),
    (sym_import_from_statement, STATE 11814), (sym_print_statement, STATE 11814),
    (sym_assert_statement, STATE 11814), (sym_comptime_assert_statement, STATE 11814),
    (sym_expression_statement, STATE 11814), (sym_tuple_expression, STATE 12425),
    (sym_named_expression, STATE 7969), (sym__named_expression_lhs, STATE 12752),
    (sym_return_statement, STATE 11814), (sym_delete_statement, STATE 11814),
    (sym_raise_statement, STATE 11814), (sym_pass_statement, STATE 11814),
    (sym_break_statement, STATE 11814), (sym_continue_statement, STATE 11814),
    (sym_extension_definition, STATE 925), (sym_mlir_region, STATE 925),
    (sym_comptime_statement, STATE 925), (sym_if_statement, STATE 925),
    (sym_match_statement, STATE 925), (sym_for_statement, STATE 925),
    (sym_while_statement, STATE 925), (sym_try_statement, STATE 925),
    (sym_with_statement, STATE 925), (sym_function_definition, STATE 925),
    (sym_global_statement, STATE 11814), (sym_nonlocal_statement, STATE 11814),
    (sym_exec_statement, STATE 11814), (sym_type_alias_statement, STATE 11814),
    (sym_parameterized_alias_statement, STATE 11814), (sym_class_definition, STATE 925),
    (sym_trait_definition, STATE 925), (sym_decorated_definition, STATE 925),
    (sym_decorator, STATE 3670), (sym_block, STATE 4472), (sym_pattern, STATE 8086),
    (sym_tuple_pattern, STATE 8101), (sym_list_pattern, STATE 8101),
    (sym_list_splat_pattern, STATE 6819), (sym_as_pattern, STATE 7969),
    (sym_expression, STATE 9883), (sym_primary_expression, STATE 7326),
    (sym_comptime_expression, STATE 7017), (sym_transfer_expression, STATE 7017),
    (sym_not_operator, STATE 7969), (sym_boolean_operator, STATE 7969),
    (sym_binary_operator, STATE 7017), (sym_unary_operator, STATE 7017),
    (sym_comparison_operator, STATE 7969), (sym_lambda, STATE 7969),
    (sym_assignment, STATE 12425), (sym_augmented_assignment, STATE 12425),
    (sym_pattern_list, STATE 8578), (sym_yield, STATE 12425), (sym_attribute, STATE 6836),
    (sym_subscript, STATE 6838), (sym_call, STATE 6845), (sym_mlir_type, STATE 7017),
    (sym_list, STATE 7017), (sym_set, STATE 7017), (sym_tuple, STATE 7017),
    (sym_dictionary, STATE 7017), (sym_struct_literal, STATE 7017),
    (sym_list_comprehension, STATE 7017), (sym_dictionary_comprehension, STATE 7017),
    (sym_set_comprehension, STATE 7017), (sym_generator_expression, STATE 7017),
    (sym_parenthesized_expression, STATE 7017), (sym_conditional_expression, STATE 7969),
    (sym_concatenated_string, STATE 7017), (sym_string, STATE 6751), (sym_await, STATE 7017),
    (aux_sym_module_repeat1, STATE 925), (aux_sym_decorated_definition_repeat1, STATE 3670),
    (sym_identifier, ACTIONS 9), (anon_sym_import, ACTIONS 11), (anon_sym_from, ACTIONS 13),
    (anon_sym_LPAREN, ACTIONS 15), (anon_sym_STAR, ACTIONS 17), (anon_sym_print, ACTIONS 19),
    (anon_sym_comptime, ACTIONS 99), (anon_sym_assert, ACTIONS 23),
    (anon_sym___comptime_assert, ACTIONS 25), (anon_sym_return, ACTIONS 27),
    (anon_sym_del, ACTIONS 29), (anon_sym_raise, ACTIONS 31), (anon_sym_pass, ACTIONS 33),
    (anon_sym_break, ACTIONS 35), (anon_sym_continue, ACTIONS 37),
    (anon_sym___extension, ACTIONS 101), (anon_sym___mlir_region, ACTIONS 103),
    (anon_sym_if, ACTIONS 105), (anon_sym_match, ACTIONS 107), (anon_sym_async, ACTIONS 109),
    (anon_sym_for, ACTIONS 111), (anon_sym_while, ACTIONS 113), (anon_sym_try, ACTIONS 115),
    (anon_sym_with, ACTIONS 117), (anon_sym_def, ACTIONS 119), (anon_sym_fn, ACTIONS 119),
    (anon_sym_LBRACK, ACTIONS 59), (anon_sym_LBRACE, ACTIONS 61), (anon_sym_global, ACTIONS 63),
    (anon_sym_nonlocal, ACTIONS 65), (anon_sym_exec, ACTIONS 67), (anon_sym_type, ACTIONS 69),
    (anon_sym_class, ACTIONS 121), (anon_sym_struct, ACTIONS 121), (anon_sym_mut, ACTIONS 73),
    (anon_sym_out, ACTIONS 73), (anon_sym_trait, ACTIONS 123), (anon_sym_AT, ACTIONS 77),
    (anon_sym_DASH, ACTIONS 79), (anon_sym_PLUS, ACTIONS 79), (anon_sym_ref, ACTIONS 81),
    (anon_sym_var, ACTIONS 81), (anon_sym_not, ACTIONS 83), (anon_sym_TILDE, ACTIONS 79),
    (anon_sym_lambda, ACTIONS 85), (anon_sym_yield, ACTIONS 87), (sym_ellipsis, ACTIONS 89),
    (anon_sym___mlir_type, ACTIONS 91), (sym_integer, ACTIONS 93), (sym_float, ACTIONS 89),
    (anon_sym_await, ACTIONS 95), (sym_true, ACTIONS 93), (sym_false, ACTIONS 93),
    (sym_none, ACTIONS 93), (sym_comment, ACTIONS 3), (sym_line_continuation, ACTIONS 3),
    (sym__dedent, ACTIONS 129), (sym_string_start, ACTIONS 97)]"

definition parse_table_96 :: "(nat \<times> nat) list" where "parse_table_96 = [
    (sym__statement, STATE 925), (sym__simple_statements, STATE 925),
    (sym_import_statement, STATE 11814), (sym_future_import_statement, STATE 11814),
    (sym_import_from_statement, STATE 11814), (sym_print_statement, STATE 11814),
    (sym_assert_statement, STATE 11814), (sym_comptime_assert_statement, STATE 11814),
    (sym_expression_statement, STATE 11814), (sym_tuple_expression, STATE 12425),
    (sym_named_expression, STATE 7969), (sym__named_expression_lhs, STATE 12752),
    (sym_return_statement, STATE 11814), (sym_delete_statement, STATE 11814),
    (sym_raise_statement, STATE 11814), (sym_pass_statement, STATE 11814),
    (sym_break_statement, STATE 11814), (sym_continue_statement, STATE 11814),
    (sym_extension_definition, STATE 925), (sym_mlir_region, STATE 925),
    (sym_comptime_statement, STATE 925), (sym_if_statement, STATE 925),
    (sym_match_statement, STATE 925), (sym_for_statement, STATE 925),
    (sym_while_statement, STATE 925), (sym_try_statement, STATE 925),
    (sym_with_statement, STATE 925), (sym_function_definition, STATE 925),
    (sym_global_statement, STATE 11814), (sym_nonlocal_statement, STATE 11814),
    (sym_exec_statement, STATE 11814), (sym_type_alias_statement, STATE 11814),
    (sym_parameterized_alias_statement, STATE 11814), (sym_class_definition, STATE 925),
    (sym_trait_definition, STATE 925), (sym_decorated_definition, STATE 925),
    (sym_decorator, STATE 3670), (sym_block, STATE 4473), (sym_pattern, STATE 8086),
    (sym_tuple_pattern, STATE 8101), (sym_list_pattern, STATE 8101),
    (sym_list_splat_pattern, STATE 6819), (sym_as_pattern, STATE 7969),
    (sym_expression, STATE 9883), (sym_primary_expression, STATE 7326),
    (sym_comptime_expression, STATE 7017), (sym_transfer_expression, STATE 7017),
    (sym_not_operator, STATE 7969), (sym_boolean_operator, STATE 7969),
    (sym_binary_operator, STATE 7017), (sym_unary_operator, STATE 7017),
    (sym_comparison_operator, STATE 7969), (sym_lambda, STATE 7969),
    (sym_assignment, STATE 12425), (sym_augmented_assignment, STATE 12425),
    (sym_pattern_list, STATE 8578), (sym_yield, STATE 12425), (sym_attribute, STATE 6836),
    (sym_subscript, STATE 6838), (sym_call, STATE 6845), (sym_mlir_type, STATE 7017),
    (sym_list, STATE 7017), (sym_set, STATE 7017), (sym_tuple, STATE 7017),
    (sym_dictionary, STATE 7017), (sym_struct_literal, STATE 7017),
    (sym_list_comprehension, STATE 7017), (sym_dictionary_comprehension, STATE 7017),
    (sym_set_comprehension, STATE 7017), (sym_generator_expression, STATE 7017),
    (sym_parenthesized_expression, STATE 7017), (sym_conditional_expression, STATE 7969),
    (sym_concatenated_string, STATE 7017), (sym_string, STATE 6751), (sym_await, STATE 7017),
    (aux_sym_module_repeat1, STATE 925), (aux_sym_decorated_definition_repeat1, STATE 3670),
    (sym_identifier, ACTIONS 9), (anon_sym_import, ACTIONS 11), (anon_sym_from, ACTIONS 13),
    (anon_sym_LPAREN, ACTIONS 15), (anon_sym_STAR, ACTIONS 17), (anon_sym_print, ACTIONS 19),
    (anon_sym_comptime, ACTIONS 99), (anon_sym_assert, ACTIONS 23),
    (anon_sym___comptime_assert, ACTIONS 25), (anon_sym_return, ACTIONS 27),
    (anon_sym_del, ACTIONS 29), (anon_sym_raise, ACTIONS 31), (anon_sym_pass, ACTIONS 33),
    (anon_sym_break, ACTIONS 35), (anon_sym_continue, ACTIONS 37),
    (anon_sym___extension, ACTIONS 101), (anon_sym___mlir_region, ACTIONS 103),
    (anon_sym_if, ACTIONS 105), (anon_sym_match, ACTIONS 107), (anon_sym_async, ACTIONS 109),
    (anon_sym_for, ACTIONS 111), (anon_sym_while, ACTIONS 113), (anon_sym_try, ACTIONS 115),
    (anon_sym_with, ACTIONS 117), (anon_sym_def, ACTIONS 119), (anon_sym_fn, ACTIONS 119),
    (anon_sym_LBRACK, ACTIONS 59), (anon_sym_LBRACE, ACTIONS 61), (anon_sym_global, ACTIONS 63),
    (anon_sym_nonlocal, ACTIONS 65), (anon_sym_exec, ACTIONS 67), (anon_sym_type, ACTIONS 69),
    (anon_sym_class, ACTIONS 121), (anon_sym_struct, ACTIONS 121), (anon_sym_mut, ACTIONS 73),
    (anon_sym_out, ACTIONS 73), (anon_sym_trait, ACTIONS 123), (anon_sym_AT, ACTIONS 77),
    (anon_sym_DASH, ACTIONS 79), (anon_sym_PLUS, ACTIONS 79), (anon_sym_ref, ACTIONS 81),
    (anon_sym_var, ACTIONS 81), (anon_sym_not, ACTIONS 83), (anon_sym_TILDE, ACTIONS 79),
    (anon_sym_lambda, ACTIONS 85), (anon_sym_yield, ACTIONS 87), (sym_ellipsis, ACTIONS 89),
    (anon_sym___mlir_type, ACTIONS 91), (sym_integer, ACTIONS 93), (sym_float, ACTIONS 89),
    (anon_sym_await, ACTIONS 95), (sym_true, ACTIONS 93), (sym_false, ACTIONS 93),
    (sym_none, ACTIONS 93), (sym_comment, ACTIONS 3), (sym_line_continuation, ACTIONS 3),
    (sym__dedent, ACTIONS 129), (sym_string_start, ACTIONS 97)]"

definition parse_table_97 :: "(nat \<times> nat) list" where "parse_table_97 = [
    (sym__statement, STATE 925), (sym__simple_statements, STATE 925),
    (sym_import_statement, STATE 11814), (sym_future_import_statement, STATE 11814),
    (sym_import_from_statement, STATE 11814), (sym_print_statement, STATE 11814),
    (sym_assert_statement, STATE 11814), (sym_comptime_assert_statement, STATE 11814),
    (sym_expression_statement, STATE 11814), (sym_tuple_expression, STATE 12425),
    (sym_named_expression, STATE 7969), (sym__named_expression_lhs, STATE 12752),
    (sym_return_statement, STATE 11814), (sym_delete_statement, STATE 11814),
    (sym_raise_statement, STATE 11814), (sym_pass_statement, STATE 11814),
    (sym_break_statement, STATE 11814), (sym_continue_statement, STATE 11814),
    (sym_extension_definition, STATE 925), (sym_mlir_region, STATE 925),
    (sym_comptime_statement, STATE 925), (sym_if_statement, STATE 925),
    (sym_match_statement, STATE 925), (sym_for_statement, STATE 925),
    (sym_while_statement, STATE 925), (sym_try_statement, STATE 925),
    (sym_with_statement, STATE 925), (sym_function_definition, STATE 925),
    (sym_global_statement, STATE 11814), (sym_nonlocal_statement, STATE 11814),
    (sym_exec_statement, STATE 11814), (sym_type_alias_statement, STATE 11814),
    (sym_parameterized_alias_statement, STATE 11814), (sym_class_definition, STATE 925),
    (sym_trait_definition, STATE 925), (sym_decorated_definition, STATE 925),
    (sym_decorator, STATE 3670), (sym_block, STATE 4478), (sym_pattern, STATE 8086),
    (sym_tuple_pattern, STATE 8101), (sym_list_pattern, STATE 8101),
    (sym_list_splat_pattern, STATE 6819), (sym_as_pattern, STATE 7969),
    (sym_expression, STATE 9883), (sym_primary_expression, STATE 7326),
    (sym_comptime_expression, STATE 7017), (sym_transfer_expression, STATE 7017),
    (sym_not_operator, STATE 7969), (sym_boolean_operator, STATE 7969),
    (sym_binary_operator, STATE 7017), (sym_unary_operator, STATE 7017),
    (sym_comparison_operator, STATE 7969), (sym_lambda, STATE 7969),
    (sym_assignment, STATE 12425), (sym_augmented_assignment, STATE 12425),
    (sym_pattern_list, STATE 8578), (sym_yield, STATE 12425), (sym_attribute, STATE 6836),
    (sym_subscript, STATE 6838), (sym_call, STATE 6845), (sym_mlir_type, STATE 7017),
    (sym_list, STATE 7017), (sym_set, STATE 7017), (sym_tuple, STATE 7017),
    (sym_dictionary, STATE 7017), (sym_struct_literal, STATE 7017),
    (sym_list_comprehension, STATE 7017), (sym_dictionary_comprehension, STATE 7017),
    (sym_set_comprehension, STATE 7017), (sym_generator_expression, STATE 7017),
    (sym_parenthesized_expression, STATE 7017), (sym_conditional_expression, STATE 7969),
    (sym_concatenated_string, STATE 7017), (sym_string, STATE 6751), (sym_await, STATE 7017),
    (aux_sym_module_repeat1, STATE 925), (aux_sym_decorated_definition_repeat1, STATE 3670),
    (sym_identifier, ACTIONS 9), (anon_sym_import, ACTIONS 11), (anon_sym_from, ACTIONS 13),
    (anon_sym_LPAREN, ACTIONS 15), (anon_sym_STAR, ACTIONS 17), (anon_sym_print, ACTIONS 19),
    (anon_sym_comptime, ACTIONS 99), (anon_sym_assert, ACTIONS 23),
    (anon_sym___comptime_assert, ACTIONS 25), (anon_sym_return, ACTIONS 27),
    (anon_sym_del, ACTIONS 29), (anon_sym_raise, ACTIONS 31), (anon_sym_pass, ACTIONS 33),
    (anon_sym_break, ACTIONS 35), (anon_sym_continue, ACTIONS 37),
    (anon_sym___extension, ACTIONS 101), (anon_sym___mlir_region, ACTIONS 103),
    (anon_sym_if, ACTIONS 105), (anon_sym_match, ACTIONS 107), (anon_sym_async, ACTIONS 109),
    (anon_sym_for, ACTIONS 111), (anon_sym_while, ACTIONS 113), (anon_sym_try, ACTIONS 115),
    (anon_sym_with, ACTIONS 117), (anon_sym_def, ACTIONS 119), (anon_sym_fn, ACTIONS 119),
    (anon_sym_LBRACK, ACTIONS 59), (anon_sym_LBRACE, ACTIONS 61), (anon_sym_global, ACTIONS 63),
    (anon_sym_nonlocal, ACTIONS 65), (anon_sym_exec, ACTIONS 67), (anon_sym_type, ACTIONS 69),
    (anon_sym_class, ACTIONS 121), (anon_sym_struct, ACTIONS 121), (anon_sym_mut, ACTIONS 73),
    (anon_sym_out, ACTIONS 73), (anon_sym_trait, ACTIONS 123), (anon_sym_AT, ACTIONS 77),
    (anon_sym_DASH, ACTIONS 79), (anon_sym_PLUS, ACTIONS 79), (anon_sym_ref, ACTIONS 81),
    (anon_sym_var, ACTIONS 81), (anon_sym_not, ACTIONS 83), (anon_sym_TILDE, ACTIONS 79),
    (anon_sym_lambda, ACTIONS 85), (anon_sym_yield, ACTIONS 87), (sym_ellipsis, ACTIONS 89),
    (anon_sym___mlir_type, ACTIONS 91), (sym_integer, ACTIONS 93), (sym_float, ACTIONS 89),
    (anon_sym_await, ACTIONS 95), (sym_true, ACTIONS 93), (sym_false, ACTIONS 93),
    (sym_none, ACTIONS 93), (sym_comment, ACTIONS 3), (sym_line_continuation, ACTIONS 3),
    (sym__dedent, ACTIONS 129), (sym_string_start, ACTIONS 97)]"

definition parse_table_98 :: "(nat \<times> nat) list" where "parse_table_98 = [
    (sym__statement, STATE 925), (sym__simple_statements, STATE 925),
    (sym_import_statement, STATE 11814), (sym_future_import_statement, STATE 11814),
    (sym_import_from_statement, STATE 11814), (sym_print_statement, STATE 11814),
    (sym_assert_statement, STATE 11814), (sym_comptime_assert_statement, STATE 11814),
    (sym_expression_statement, STATE 11814), (sym_tuple_expression, STATE 12425),
    (sym_named_expression, STATE 7969), (sym__named_expression_lhs, STATE 12752),
    (sym_return_statement, STATE 11814), (sym_delete_statement, STATE 11814),
    (sym_raise_statement, STATE 11814), (sym_pass_statement, STATE 11814),
    (sym_break_statement, STATE 11814), (sym_continue_statement, STATE 11814),
    (sym_extension_definition, STATE 925), (sym_mlir_region, STATE 925),
    (sym_comptime_statement, STATE 925), (sym_if_statement, STATE 925),
    (sym_match_statement, STATE 925), (sym_for_statement, STATE 925),
    (sym_while_statement, STATE 925), (sym_try_statement, STATE 925),
    (sym_with_statement, STATE 925), (sym_function_definition, STATE 925),
    (sym_global_statement, STATE 11814), (sym_nonlocal_statement, STATE 11814),
    (sym_exec_statement, STATE 11814), (sym_type_alias_statement, STATE 11814),
    (sym_parameterized_alias_statement, STATE 11814), (sym_class_definition, STATE 925),
    (sym_trait_definition, STATE 925), (sym_decorated_definition, STATE 925),
    (sym_decorator, STATE 3670), (sym_block, STATE 4485), (sym_pattern, STATE 8086),
    (sym_tuple_pattern, STATE 8101), (sym_list_pattern, STATE 8101),
    (sym_list_splat_pattern, STATE 6819), (sym_as_pattern, STATE 7969),
    (sym_expression, STATE 9883), (sym_primary_expression, STATE 7326),
    (sym_comptime_expression, STATE 7017), (sym_transfer_expression, STATE 7017),
    (sym_not_operator, STATE 7969), (sym_boolean_operator, STATE 7969),
    (sym_binary_operator, STATE 7017), (sym_unary_operator, STATE 7017),
    (sym_comparison_operator, STATE 7969), (sym_lambda, STATE 7969),
    (sym_assignment, STATE 12425), (sym_augmented_assignment, STATE 12425),
    (sym_pattern_list, STATE 8578), (sym_yield, STATE 12425), (sym_attribute, STATE 6836),
    (sym_subscript, STATE 6838), (sym_call, STATE 6845), (sym_mlir_type, STATE 7017),
    (sym_list, STATE 7017), (sym_set, STATE 7017), (sym_tuple, STATE 7017),
    (sym_dictionary, STATE 7017), (sym_struct_literal, STATE 7017),
    (sym_list_comprehension, STATE 7017), (sym_dictionary_comprehension, STATE 7017),
    (sym_set_comprehension, STATE 7017), (sym_generator_expression, STATE 7017),
    (sym_parenthesized_expression, STATE 7017), (sym_conditional_expression, STATE 7969),
    (sym_concatenated_string, STATE 7017), (sym_string, STATE 6751), (sym_await, STATE 7017),
    (aux_sym_module_repeat1, STATE 925), (aux_sym_decorated_definition_repeat1, STATE 3670),
    (sym_identifier, ACTIONS 9), (anon_sym_import, ACTIONS 11), (anon_sym_from, ACTIONS 13),
    (anon_sym_LPAREN, ACTIONS 15), (anon_sym_STAR, ACTIONS 17), (anon_sym_print, ACTIONS 19),
    (anon_sym_comptime, ACTIONS 99), (anon_sym_assert, ACTIONS 23),
    (anon_sym___comptime_assert, ACTIONS 25), (anon_sym_return, ACTIONS 27),
    (anon_sym_del, ACTIONS 29), (anon_sym_raise, ACTIONS 31), (anon_sym_pass, ACTIONS 33),
    (anon_sym_break, ACTIONS 35), (anon_sym_continue, ACTIONS 37),
    (anon_sym___extension, ACTIONS 101), (anon_sym___mlir_region, ACTIONS 103),
    (anon_sym_if, ACTIONS 105), (anon_sym_match, ACTIONS 107), (anon_sym_async, ACTIONS 109),
    (anon_sym_for, ACTIONS 111), (anon_sym_while, ACTIONS 113), (anon_sym_try, ACTIONS 115),
    (anon_sym_with, ACTIONS 117), (anon_sym_def, ACTIONS 119), (anon_sym_fn, ACTIONS 119),
    (anon_sym_LBRACK, ACTIONS 59), (anon_sym_LBRACE, ACTIONS 61), (anon_sym_global, ACTIONS 63),
    (anon_sym_nonlocal, ACTIONS 65), (anon_sym_exec, ACTIONS 67), (anon_sym_type, ACTIONS 69),
    (anon_sym_class, ACTIONS 121), (anon_sym_struct, ACTIONS 121), (anon_sym_mut, ACTIONS 73),
    (anon_sym_out, ACTIONS 73), (anon_sym_trait, ACTIONS 123), (anon_sym_AT, ACTIONS 77),
    (anon_sym_DASH, ACTIONS 79), (anon_sym_PLUS, ACTIONS 79), (anon_sym_ref, ACTIONS 81),
    (anon_sym_var, ACTIONS 81), (anon_sym_not, ACTIONS 83), (anon_sym_TILDE, ACTIONS 79),
    (anon_sym_lambda, ACTIONS 85), (anon_sym_yield, ACTIONS 87), (sym_ellipsis, ACTIONS 89),
    (anon_sym___mlir_type, ACTIONS 91), (sym_integer, ACTIONS 93), (sym_float, ACTIONS 89),
    (anon_sym_await, ACTIONS 95), (sym_true, ACTIONS 93), (sym_false, ACTIONS 93),
    (sym_none, ACTIONS 93), (sym_comment, ACTIONS 3), (sym_line_continuation, ACTIONS 3),
    (sym__dedent, ACTIONS 129), (sym_string_start, ACTIONS 97)]"

definition parse_table_99 :: "(nat \<times> nat) list" where "parse_table_99 = [
    (sym__statement, STATE 925), (sym__simple_statements, STATE 925),
    (sym_import_statement, STATE 11814), (sym_future_import_statement, STATE 11814),
    (sym_import_from_statement, STATE 11814), (sym_print_statement, STATE 11814),
    (sym_assert_statement, STATE 11814), (sym_comptime_assert_statement, STATE 11814),
    (sym_expression_statement, STATE 11814), (sym_tuple_expression, STATE 12425),
    (sym_named_expression, STATE 7969), (sym__named_expression_lhs, STATE 12752),
    (sym_return_statement, STATE 11814), (sym_delete_statement, STATE 11814),
    (sym_raise_statement, STATE 11814), (sym_pass_statement, STATE 11814),
    (sym_break_statement, STATE 11814), (sym_continue_statement, STATE 11814),
    (sym_extension_definition, STATE 925), (sym_mlir_region, STATE 925),
    (sym_comptime_statement, STATE 925), (sym_if_statement, STATE 925),
    (sym_match_statement, STATE 925), (sym_for_statement, STATE 925),
    (sym_while_statement, STATE 925), (sym_try_statement, STATE 925),
    (sym_with_statement, STATE 925), (sym_function_definition, STATE 925),
    (sym_global_statement, STATE 11814), (sym_nonlocal_statement, STATE 11814),
    (sym_exec_statement, STATE 11814), (sym_type_alias_statement, STATE 11814),
    (sym_parameterized_alias_statement, STATE 11814), (sym_class_definition, STATE 925),
    (sym_trait_definition, STATE 925), (sym_decorated_definition, STATE 925),
    (sym_decorator, STATE 3670), (sym_block, STATE 4495), (sym_pattern, STATE 8086),
    (sym_tuple_pattern, STATE 8101), (sym_list_pattern, STATE 8101),
    (sym_list_splat_pattern, STATE 6819), (sym_as_pattern, STATE 7969),
    (sym_expression, STATE 9883), (sym_primary_expression, STATE 7326),
    (sym_comptime_expression, STATE 7017), (sym_transfer_expression, STATE 7017),
    (sym_not_operator, STATE 7969), (sym_boolean_operator, STATE 7969),
    (sym_binary_operator, STATE 7017), (sym_unary_operator, STATE 7017),
    (sym_comparison_operator, STATE 7969), (sym_lambda, STATE 7969),
    (sym_assignment, STATE 12425), (sym_augmented_assignment, STATE 12425),
    (sym_pattern_list, STATE 8578), (sym_yield, STATE 12425), (sym_attribute, STATE 6836),
    (sym_subscript, STATE 6838), (sym_call, STATE 6845), (sym_mlir_type, STATE 7017),
    (sym_list, STATE 7017), (sym_set, STATE 7017), (sym_tuple, STATE 7017),
    (sym_dictionary, STATE 7017), (sym_struct_literal, STATE 7017),
    (sym_list_comprehension, STATE 7017), (sym_dictionary_comprehension, STATE 7017),
    (sym_set_comprehension, STATE 7017), (sym_generator_expression, STATE 7017),
    (sym_parenthesized_expression, STATE 7017), (sym_conditional_expression, STATE 7969),
    (sym_concatenated_string, STATE 7017), (sym_string, STATE 6751), (sym_await, STATE 7017),
    (aux_sym_module_repeat1, STATE 925), (aux_sym_decorated_definition_repeat1, STATE 3670),
    (sym_identifier, ACTIONS 9), (anon_sym_import, ACTIONS 11), (anon_sym_from, ACTIONS 13),
    (anon_sym_LPAREN, ACTIONS 15), (anon_sym_STAR, ACTIONS 17), (anon_sym_print, ACTIONS 19),
    (anon_sym_comptime, ACTIONS 99), (anon_sym_assert, ACTIONS 23),
    (anon_sym___comptime_assert, ACTIONS 25), (anon_sym_return, ACTIONS 27),
    (anon_sym_del, ACTIONS 29), (anon_sym_raise, ACTIONS 31), (anon_sym_pass, ACTIONS 33),
    (anon_sym_break, ACTIONS 35), (anon_sym_continue, ACTIONS 37),
    (anon_sym___extension, ACTIONS 101), (anon_sym___mlir_region, ACTIONS 103),
    (anon_sym_if, ACTIONS 105), (anon_sym_match, ACTIONS 107), (anon_sym_async, ACTIONS 109),
    (anon_sym_for, ACTIONS 111), (anon_sym_while, ACTIONS 113), (anon_sym_try, ACTIONS 115),
    (anon_sym_with, ACTIONS 117), (anon_sym_def, ACTIONS 119), (anon_sym_fn, ACTIONS 119),
    (anon_sym_LBRACK, ACTIONS 59), (anon_sym_LBRACE, ACTIONS 61), (anon_sym_global, ACTIONS 63),
    (anon_sym_nonlocal, ACTIONS 65), (anon_sym_exec, ACTIONS 67), (anon_sym_type, ACTIONS 69),
    (anon_sym_class, ACTIONS 121), (anon_sym_struct, ACTIONS 121), (anon_sym_mut, ACTIONS 73),
    (anon_sym_out, ACTIONS 73), (anon_sym_trait, ACTIONS 123), (anon_sym_AT, ACTIONS 77),
    (anon_sym_DASH, ACTIONS 79), (anon_sym_PLUS, ACTIONS 79), (anon_sym_ref, ACTIONS 81),
    (anon_sym_var, ACTIONS 81), (anon_sym_not, ACTIONS 83), (anon_sym_TILDE, ACTIONS 79),
    (anon_sym_lambda, ACTIONS 85), (anon_sym_yield, ACTIONS 87), (sym_ellipsis, ACTIONS 89),
    (anon_sym___mlir_type, ACTIONS 91), (sym_integer, ACTIONS 93), (sym_float, ACTIONS 89),
    (anon_sym_await, ACTIONS 95), (sym_true, ACTIONS 93), (sym_false, ACTIONS 93),
    (sym_none, ACTIONS 93), (sym_comment, ACTIONS 3), (sym_line_continuation, ACTIONS 3),
    (sym__dedent, ACTIONS 129), (sym_string_start, ACTIONS 97)]"

definition parse_table_100 :: "(nat \<times> nat) list" where "parse_table_100 = [
    (sym__statement, STATE 925), (sym__simple_statements, STATE 925),
    (sym_import_statement, STATE 11814), (sym_future_import_statement, STATE 11814),
    (sym_import_from_statement, STATE 11814), (sym_print_statement, STATE 11814),
    (sym_assert_statement, STATE 11814), (sym_comptime_assert_statement, STATE 11814),
    (sym_expression_statement, STATE 11814), (sym_tuple_expression, STATE 12425),
    (sym_named_expression, STATE 7969), (sym__named_expression_lhs, STATE 12752),
    (sym_return_statement, STATE 11814), (sym_delete_statement, STATE 11814),
    (sym_raise_statement, STATE 11814), (sym_pass_statement, STATE 11814),
    (sym_break_statement, STATE 11814), (sym_continue_statement, STATE 11814),
    (sym_extension_definition, STATE 925), (sym_mlir_region, STATE 925),
    (sym_comptime_statement, STATE 925), (sym_if_statement, STATE 925),
    (sym_match_statement, STATE 925), (sym_for_statement, STATE 925),
    (sym_while_statement, STATE 925), (sym_try_statement, STATE 925),
    (sym_with_statement, STATE 925), (sym_function_definition, STATE 925),
    (sym_global_statement, STATE 11814), (sym_nonlocal_statement, STATE 11814),
    (sym_exec_statement, STATE 11814), (sym_type_alias_statement, STATE 11814),
    (sym_parameterized_alias_statement, STATE 11814), (sym_class_definition, STATE 925),
    (sym_trait_definition, STATE 925), (sym_decorated_definition, STATE 925),
    (sym_decorator, STATE 3670), (sym_block, STATE 4511), (sym_pattern, STATE 8086),
    (sym_tuple_pattern, STATE 8101), (sym_list_pattern, STATE 8101),
    (sym_list_splat_pattern, STATE 6819), (sym_as_pattern, STATE 7969),
    (sym_expression, STATE 9883), (sym_primary_expression, STATE 7326),
    (sym_comptime_expression, STATE 7017), (sym_transfer_expression, STATE 7017),
    (sym_not_operator, STATE 7969), (sym_boolean_operator, STATE 7969),
    (sym_binary_operator, STATE 7017), (sym_unary_operator, STATE 7017),
    (sym_comparison_operator, STATE 7969), (sym_lambda, STATE 7969),
    (sym_assignment, STATE 12425), (sym_augmented_assignment, STATE 12425),
    (sym_pattern_list, STATE 8578), (sym_yield, STATE 12425), (sym_attribute, STATE 6836),
    (sym_subscript, STATE 6838), (sym_call, STATE 6845), (sym_mlir_type, STATE 7017),
    (sym_list, STATE 7017), (sym_set, STATE 7017), (sym_tuple, STATE 7017),
    (sym_dictionary, STATE 7017), (sym_struct_literal, STATE 7017),
    (sym_list_comprehension, STATE 7017), (sym_dictionary_comprehension, STATE 7017),
    (sym_set_comprehension, STATE 7017), (sym_generator_expression, STATE 7017),
    (sym_parenthesized_expression, STATE 7017), (sym_conditional_expression, STATE 7969),
    (sym_concatenated_string, STATE 7017), (sym_string, STATE 6751), (sym_await, STATE 7017),
    (aux_sym_module_repeat1, STATE 925), (aux_sym_decorated_definition_repeat1, STATE 3670),
    (sym_identifier, ACTIONS 9), (anon_sym_import, ACTIONS 11), (anon_sym_from, ACTIONS 13),
    (anon_sym_LPAREN, ACTIONS 15), (anon_sym_STAR, ACTIONS 17), (anon_sym_print, ACTIONS 19),
    (anon_sym_comptime, ACTIONS 99), (anon_sym_assert, ACTIONS 23),
    (anon_sym___comptime_assert, ACTIONS 25), (anon_sym_return, ACTIONS 27),
    (anon_sym_del, ACTIONS 29), (anon_sym_raise, ACTIONS 31), (anon_sym_pass, ACTIONS 33),
    (anon_sym_break, ACTIONS 35), (anon_sym_continue, ACTIONS 37),
    (anon_sym___extension, ACTIONS 101), (anon_sym___mlir_region, ACTIONS 103),
    (anon_sym_if, ACTIONS 105), (anon_sym_match, ACTIONS 107), (anon_sym_async, ACTIONS 109),
    (anon_sym_for, ACTIONS 111), (anon_sym_while, ACTIONS 113), (anon_sym_try, ACTIONS 115),
    (anon_sym_with, ACTIONS 117), (anon_sym_def, ACTIONS 119), (anon_sym_fn, ACTIONS 119),
    (anon_sym_LBRACK, ACTIONS 59), (anon_sym_LBRACE, ACTIONS 61), (anon_sym_global, ACTIONS 63),
    (anon_sym_nonlocal, ACTIONS 65), (anon_sym_exec, ACTIONS 67), (anon_sym_type, ACTIONS 69),
    (anon_sym_class, ACTIONS 121), (anon_sym_struct, ACTIONS 121), (anon_sym_mut, ACTIONS 73),
    (anon_sym_out, ACTIONS 73), (anon_sym_trait, ACTIONS 123), (anon_sym_AT, ACTIONS 77),
    (anon_sym_DASH, ACTIONS 79), (anon_sym_PLUS, ACTIONS 79), (anon_sym_ref, ACTIONS 81),
    (anon_sym_var, ACTIONS 81), (anon_sym_not, ACTIONS 83), (anon_sym_TILDE, ACTIONS 79),
    (anon_sym_lambda, ACTIONS 85), (anon_sym_yield, ACTIONS 87), (sym_ellipsis, ACTIONS 89),
    (anon_sym___mlir_type, ACTIONS 91), (sym_integer, ACTIONS 93), (sym_float, ACTIONS 89),
    (anon_sym_await, ACTIONS 95), (sym_true, ACTIONS 93), (sym_false, ACTIONS 93),
    (sym_none, ACTIONS 93), (sym_comment, ACTIONS 3), (sym_line_continuation, ACTIONS 3),
    (sym__dedent, ACTIONS 129), (sym_string_start, ACTIONS 97)]"

definition parse_table_101 :: "(nat \<times> nat) list" where "parse_table_101 = [
    (sym__statement, STATE 925), (sym__simple_statements, STATE 925),
    (sym_import_statement, STATE 11814), (sym_future_import_statement, STATE 11814),
    (sym_import_from_statement, STATE 11814), (sym_print_statement, STATE 11814),
    (sym_assert_statement, STATE 11814), (sym_comptime_assert_statement, STATE 11814),
    (sym_expression_statement, STATE 11814), (sym_tuple_expression, STATE 12425),
    (sym_named_expression, STATE 7969), (sym__named_expression_lhs, STATE 12752),
    (sym_return_statement, STATE 11814), (sym_delete_statement, STATE 11814),
    (sym_raise_statement, STATE 11814), (sym_pass_statement, STATE 11814),
    (sym_break_statement, STATE 11814), (sym_continue_statement, STATE 11814),
    (sym_extension_definition, STATE 925), (sym_mlir_region, STATE 925),
    (sym_comptime_statement, STATE 925), (sym_if_statement, STATE 925),
    (sym_match_statement, STATE 925), (sym_for_statement, STATE 925),
    (sym_while_statement, STATE 925), (sym_try_statement, STATE 925),
    (sym_with_statement, STATE 925), (sym_function_definition, STATE 925),
    (sym_global_statement, STATE 11814), (sym_nonlocal_statement, STATE 11814),
    (sym_exec_statement, STATE 11814), (sym_type_alias_statement, STATE 11814),
    (sym_parameterized_alias_statement, STATE 11814), (sym_class_definition, STATE 925),
    (sym_trait_definition, STATE 925), (sym_decorated_definition, STATE 925),
    (sym_decorator, STATE 3670), (sym_block, STATE 4516), (sym_pattern, STATE 8086),
    (sym_tuple_pattern, STATE 8101), (sym_list_pattern, STATE 8101),
    (sym_list_splat_pattern, STATE 6819), (sym_as_pattern, STATE 7969),
    (sym_expression, STATE 9883), (sym_primary_expression, STATE 7326),
    (sym_comptime_expression, STATE 7017), (sym_transfer_expression, STATE 7017),
    (sym_not_operator, STATE 7969), (sym_boolean_operator, STATE 7969),
    (sym_binary_operator, STATE 7017), (sym_unary_operator, STATE 7017),
    (sym_comparison_operator, STATE 7969), (sym_lambda, STATE 7969),
    (sym_assignment, STATE 12425), (sym_augmented_assignment, STATE 12425),
    (sym_pattern_list, STATE 8578), (sym_yield, STATE 12425), (sym_attribute, STATE 6836),
    (sym_subscript, STATE 6838), (sym_call, STATE 6845), (sym_mlir_type, STATE 7017),
    (sym_list, STATE 7017), (sym_set, STATE 7017), (sym_tuple, STATE 7017),
    (sym_dictionary, STATE 7017), (sym_struct_literal, STATE 7017),
    (sym_list_comprehension, STATE 7017), (sym_dictionary_comprehension, STATE 7017),
    (sym_set_comprehension, STATE 7017), (sym_generator_expression, STATE 7017),
    (sym_parenthesized_expression, STATE 7017), (sym_conditional_expression, STATE 7969),
    (sym_concatenated_string, STATE 7017), (sym_string, STATE 6751), (sym_await, STATE 7017),
    (aux_sym_module_repeat1, STATE 925), (aux_sym_decorated_definition_repeat1, STATE 3670),
    (sym_identifier, ACTIONS 9), (anon_sym_import, ACTIONS 11), (anon_sym_from, ACTIONS 13),
    (anon_sym_LPAREN, ACTIONS 15), (anon_sym_STAR, ACTIONS 17), (anon_sym_print, ACTIONS 19),
    (anon_sym_comptime, ACTIONS 99), (anon_sym_assert, ACTIONS 23),
    (anon_sym___comptime_assert, ACTIONS 25), (anon_sym_return, ACTIONS 27),
    (anon_sym_del, ACTIONS 29), (anon_sym_raise, ACTIONS 31), (anon_sym_pass, ACTIONS 33),
    (anon_sym_break, ACTIONS 35), (anon_sym_continue, ACTIONS 37),
    (anon_sym___extension, ACTIONS 101), (anon_sym___mlir_region, ACTIONS 103),
    (anon_sym_if, ACTIONS 105), (anon_sym_match, ACTIONS 107), (anon_sym_async, ACTIONS 109),
    (anon_sym_for, ACTIONS 111), (anon_sym_while, ACTIONS 113), (anon_sym_try, ACTIONS 115),
    (anon_sym_with, ACTIONS 117), (anon_sym_def, ACTIONS 119), (anon_sym_fn, ACTIONS 119),
    (anon_sym_LBRACK, ACTIONS 59), (anon_sym_LBRACE, ACTIONS 61), (anon_sym_global, ACTIONS 63),
    (anon_sym_nonlocal, ACTIONS 65), (anon_sym_exec, ACTIONS 67), (anon_sym_type, ACTIONS 69),
    (anon_sym_class, ACTIONS 121), (anon_sym_struct, ACTIONS 121), (anon_sym_mut, ACTIONS 73),
    (anon_sym_out, ACTIONS 73), (anon_sym_trait, ACTIONS 123), (anon_sym_AT, ACTIONS 77),
    (anon_sym_DASH, ACTIONS 79), (anon_sym_PLUS, ACTIONS 79), (anon_sym_ref, ACTIONS 81),
    (anon_sym_var, ACTIONS 81), (anon_sym_not, ACTIONS 83), (anon_sym_TILDE, ACTIONS 79),
    (anon_sym_lambda, ACTIONS 85), (anon_sym_yield, ACTIONS 87), (sym_ellipsis, ACTIONS 89),
    (anon_sym___mlir_type, ACTIONS 91), (sym_integer, ACTIONS 93), (sym_float, ACTIONS 89),
    (anon_sym_await, ACTIONS 95), (sym_true, ACTIONS 93), (sym_false, ACTIONS 93),
    (sym_none, ACTIONS 93), (sym_comment, ACTIONS 3), (sym_line_continuation, ACTIONS 3),
    (sym__dedent, ACTIONS 129), (sym_string_start, ACTIONS 97)]"

definition parse_table_102 :: "(nat \<times> nat) list" where "parse_table_102 = [
    (sym__statement, STATE 925), (sym__simple_statements, STATE 925),
    (sym_import_statement, STATE 11814), (sym_future_import_statement, STATE 11814),
    (sym_import_from_statement, STATE 11814), (sym_print_statement, STATE 11814),
    (sym_assert_statement, STATE 11814), (sym_comptime_assert_statement, STATE 11814),
    (sym_expression_statement, STATE 11814), (sym_tuple_expression, STATE 12425),
    (sym_named_expression, STATE 7969), (sym__named_expression_lhs, STATE 12752),
    (sym_return_statement, STATE 11814), (sym_delete_statement, STATE 11814),
    (sym_raise_statement, STATE 11814), (sym_pass_statement, STATE 11814),
    (sym_break_statement, STATE 11814), (sym_continue_statement, STATE 11814),
    (sym_extension_definition, STATE 925), (sym_mlir_region, STATE 925),
    (sym_comptime_statement, STATE 925), (sym_if_statement, STATE 925),
    (sym_match_statement, STATE 925), (sym_for_statement, STATE 925),
    (sym_while_statement, STATE 925), (sym_try_statement, STATE 925),
    (sym_with_statement, STATE 925), (sym_function_definition, STATE 925),
    (sym_global_statement, STATE 11814), (sym_nonlocal_statement, STATE 11814),
    (sym_exec_statement, STATE 11814), (sym_type_alias_statement, STATE 11814),
    (sym_parameterized_alias_statement, STATE 11814), (sym_class_definition, STATE 925),
    (sym_trait_definition, STATE 925), (sym_decorated_definition, STATE 925),
    (sym_decorator, STATE 3670), (sym_block, STATE 4517), (sym_pattern, STATE 8086),
    (sym_tuple_pattern, STATE 8101), (sym_list_pattern, STATE 8101),
    (sym_list_splat_pattern, STATE 6819), (sym_as_pattern, STATE 7969),
    (sym_expression, STATE 9883), (sym_primary_expression, STATE 7326),
    (sym_comptime_expression, STATE 7017), (sym_transfer_expression, STATE 7017),
    (sym_not_operator, STATE 7969), (sym_boolean_operator, STATE 7969),
    (sym_binary_operator, STATE 7017), (sym_unary_operator, STATE 7017),
    (sym_comparison_operator, STATE 7969), (sym_lambda, STATE 7969),
    (sym_assignment, STATE 12425), (sym_augmented_assignment, STATE 12425),
    (sym_pattern_list, STATE 8578), (sym_yield, STATE 12425), (sym_attribute, STATE 6836),
    (sym_subscript, STATE 6838), (sym_call, STATE 6845), (sym_mlir_type, STATE 7017),
    (sym_list, STATE 7017), (sym_set, STATE 7017), (sym_tuple, STATE 7017),
    (sym_dictionary, STATE 7017), (sym_struct_literal, STATE 7017),
    (sym_list_comprehension, STATE 7017), (sym_dictionary_comprehension, STATE 7017),
    (sym_set_comprehension, STATE 7017), (sym_generator_expression, STATE 7017),
    (sym_parenthesized_expression, STATE 7017), (sym_conditional_expression, STATE 7969),
    (sym_concatenated_string, STATE 7017), (sym_string, STATE 6751), (sym_await, STATE 7017),
    (aux_sym_module_repeat1, STATE 925), (aux_sym_decorated_definition_repeat1, STATE 3670),
    (sym_identifier, ACTIONS 9), (anon_sym_import, ACTIONS 11), (anon_sym_from, ACTIONS 13),
    (anon_sym_LPAREN, ACTIONS 15), (anon_sym_STAR, ACTIONS 17), (anon_sym_print, ACTIONS 19),
    (anon_sym_comptime, ACTIONS 99), (anon_sym_assert, ACTIONS 23),
    (anon_sym___comptime_assert, ACTIONS 25), (anon_sym_return, ACTIONS 27),
    (anon_sym_del, ACTIONS 29), (anon_sym_raise, ACTIONS 31), (anon_sym_pass, ACTIONS 33),
    (anon_sym_break, ACTIONS 35), (anon_sym_continue, ACTIONS 37),
    (anon_sym___extension, ACTIONS 101), (anon_sym___mlir_region, ACTIONS 103),
    (anon_sym_if, ACTIONS 105), (anon_sym_match, ACTIONS 107), (anon_sym_async, ACTIONS 109),
    (anon_sym_for, ACTIONS 111), (anon_sym_while, ACTIONS 113), (anon_sym_try, ACTIONS 115),
    (anon_sym_with, ACTIONS 117), (anon_sym_def, ACTIONS 119), (anon_sym_fn, ACTIONS 119),
    (anon_sym_LBRACK, ACTIONS 59), (anon_sym_LBRACE, ACTIONS 61), (anon_sym_global, ACTIONS 63),
    (anon_sym_nonlocal, ACTIONS 65), (anon_sym_exec, ACTIONS 67), (anon_sym_type, ACTIONS 69),
    (anon_sym_class, ACTIONS 121), (anon_sym_struct, ACTIONS 121), (anon_sym_mut, ACTIONS 73),
    (anon_sym_out, ACTIONS 73), (anon_sym_trait, ACTIONS 123), (anon_sym_AT, ACTIONS 77),
    (anon_sym_DASH, ACTIONS 79), (anon_sym_PLUS, ACTIONS 79), (anon_sym_ref, ACTIONS 81),
    (anon_sym_var, ACTIONS 81), (anon_sym_not, ACTIONS 83), (anon_sym_TILDE, ACTIONS 79),
    (anon_sym_lambda, ACTIONS 85), (anon_sym_yield, ACTIONS 87), (sym_ellipsis, ACTIONS 89),
    (anon_sym___mlir_type, ACTIONS 91), (sym_integer, ACTIONS 93), (sym_float, ACTIONS 89),
    (anon_sym_await, ACTIONS 95), (sym_true, ACTIONS 93), (sym_false, ACTIONS 93),
    (sym_none, ACTIONS 93), (sym_comment, ACTIONS 3), (sym_line_continuation, ACTIONS 3),
    (sym__dedent, ACTIONS 129), (sym_string_start, ACTIONS 97)]"

definition parse_table_103 :: "(nat \<times> nat) list" where "parse_table_103 = [
    (sym__statement, STATE 925), (sym__simple_statements, STATE 925),
    (sym_import_statement, STATE 11814), (sym_future_import_statement, STATE 11814),
    (sym_import_from_statement, STATE 11814), (sym_print_statement, STATE 11814),
    (sym_assert_statement, STATE 11814), (sym_comptime_assert_statement, STATE 11814),
    (sym_expression_statement, STATE 11814), (sym_tuple_expression, STATE 12425),
    (sym_named_expression, STATE 7969), (sym__named_expression_lhs, STATE 12752),
    (sym_return_statement, STATE 11814), (sym_delete_statement, STATE 11814),
    (sym_raise_statement, STATE 11814), (sym_pass_statement, STATE 11814),
    (sym_break_statement, STATE 11814), (sym_continue_statement, STATE 11814),
    (sym_extension_definition, STATE 925), (sym_mlir_region, STATE 925),
    (sym_comptime_statement, STATE 925), (sym_if_statement, STATE 925),
    (sym_match_statement, STATE 925), (sym_for_statement, STATE 925),
    (sym_while_statement, STATE 925), (sym_try_statement, STATE 925),
    (sym_with_statement, STATE 925), (sym_function_definition, STATE 925),
    (sym_global_statement, STATE 11814), (sym_nonlocal_statement, STATE 11814),
    (sym_exec_statement, STATE 11814), (sym_type_alias_statement, STATE 11814),
    (sym_parameterized_alias_statement, STATE 11814), (sym_class_definition, STATE 925),
    (sym_trait_definition, STATE 925), (sym_decorated_definition, STATE 925),
    (sym_decorator, STATE 3670), (sym_block, STATE 4525), (sym_pattern, STATE 8086),
    (sym_tuple_pattern, STATE 8101), (sym_list_pattern, STATE 8101),
    (sym_list_splat_pattern, STATE 6819), (sym_as_pattern, STATE 7969),
    (sym_expression, STATE 9883), (sym_primary_expression, STATE 7326),
    (sym_comptime_expression, STATE 7017), (sym_transfer_expression, STATE 7017),
    (sym_not_operator, STATE 7969), (sym_boolean_operator, STATE 7969),
    (sym_binary_operator, STATE 7017), (sym_unary_operator, STATE 7017),
    (sym_comparison_operator, STATE 7969), (sym_lambda, STATE 7969),
    (sym_assignment, STATE 12425), (sym_augmented_assignment, STATE 12425),
    (sym_pattern_list, STATE 8578), (sym_yield, STATE 12425), (sym_attribute, STATE 6836),
    (sym_subscript, STATE 6838), (sym_call, STATE 6845), (sym_mlir_type, STATE 7017),
    (sym_list, STATE 7017), (sym_set, STATE 7017), (sym_tuple, STATE 7017),
    (sym_dictionary, STATE 7017), (sym_struct_literal, STATE 7017),
    (sym_list_comprehension, STATE 7017), (sym_dictionary_comprehension, STATE 7017),
    (sym_set_comprehension, STATE 7017), (sym_generator_expression, STATE 7017),
    (sym_parenthesized_expression, STATE 7017), (sym_conditional_expression, STATE 7969),
    (sym_concatenated_string, STATE 7017), (sym_string, STATE 6751), (sym_await, STATE 7017),
    (aux_sym_module_repeat1, STATE 925), (aux_sym_decorated_definition_repeat1, STATE 3670),
    (sym_identifier, ACTIONS 9), (anon_sym_import, ACTIONS 11), (anon_sym_from, ACTIONS 13),
    (anon_sym_LPAREN, ACTIONS 15), (anon_sym_STAR, ACTIONS 17), (anon_sym_print, ACTIONS 19),
    (anon_sym_comptime, ACTIONS 99), (anon_sym_assert, ACTIONS 23),
    (anon_sym___comptime_assert, ACTIONS 25), (anon_sym_return, ACTIONS 27),
    (anon_sym_del, ACTIONS 29), (anon_sym_raise, ACTIONS 31), (anon_sym_pass, ACTIONS 33),
    (anon_sym_break, ACTIONS 35), (anon_sym_continue, ACTIONS 37),
    (anon_sym___extension, ACTIONS 101), (anon_sym___mlir_region, ACTIONS 103),
    (anon_sym_if, ACTIONS 105), (anon_sym_match, ACTIONS 107), (anon_sym_async, ACTIONS 109),
    (anon_sym_for, ACTIONS 111), (anon_sym_while, ACTIONS 113), (anon_sym_try, ACTIONS 115),
    (anon_sym_with, ACTIONS 117), (anon_sym_def, ACTIONS 119), (anon_sym_fn, ACTIONS 119),
    (anon_sym_LBRACK, ACTIONS 59), (anon_sym_LBRACE, ACTIONS 61), (anon_sym_global, ACTIONS 63),
    (anon_sym_nonlocal, ACTIONS 65), (anon_sym_exec, ACTIONS 67), (anon_sym_type, ACTIONS 69),
    (anon_sym_class, ACTIONS 121), (anon_sym_struct, ACTIONS 121), (anon_sym_mut, ACTIONS 73),
    (anon_sym_out, ACTIONS 73), (anon_sym_trait, ACTIONS 123), (anon_sym_AT, ACTIONS 77),
    (anon_sym_DASH, ACTIONS 79), (anon_sym_PLUS, ACTIONS 79), (anon_sym_ref, ACTIONS 81),
    (anon_sym_var, ACTIONS 81), (anon_sym_not, ACTIONS 83), (anon_sym_TILDE, ACTIONS 79),
    (anon_sym_lambda, ACTIONS 85), (anon_sym_yield, ACTIONS 87), (sym_ellipsis, ACTIONS 89),
    (anon_sym___mlir_type, ACTIONS 91), (sym_integer, ACTIONS 93), (sym_float, ACTIONS 89),
    (anon_sym_await, ACTIONS 95), (sym_true, ACTIONS 93), (sym_false, ACTIONS 93),
    (sym_none, ACTIONS 93), (sym_comment, ACTIONS 3), (sym_line_continuation, ACTIONS 3),
    (sym__dedent, ACTIONS 129), (sym_string_start, ACTIONS 97)]"

definition parse_table_104 :: "(nat \<times> nat) list" where "parse_table_104 = [
    (sym__statement, STATE 925), (sym__simple_statements, STATE 925),
    (sym_import_statement, STATE 11814), (sym_future_import_statement, STATE 11814),
    (sym_import_from_statement, STATE 11814), (sym_print_statement, STATE 11814),
    (sym_assert_statement, STATE 11814), (sym_comptime_assert_statement, STATE 11814),
    (sym_expression_statement, STATE 11814), (sym_tuple_expression, STATE 12425),
    (sym_named_expression, STATE 7969), (sym__named_expression_lhs, STATE 12752),
    (sym_return_statement, STATE 11814), (sym_delete_statement, STATE 11814),
    (sym_raise_statement, STATE 11814), (sym_pass_statement, STATE 11814),
    (sym_break_statement, STATE 11814), (sym_continue_statement, STATE 11814),
    (sym_extension_definition, STATE 925), (sym_mlir_region, STATE 925),
    (sym_comptime_statement, STATE 925), (sym_if_statement, STATE 925),
    (sym_match_statement, STATE 925), (sym_for_statement, STATE 925),
    (sym_while_statement, STATE 925), (sym_try_statement, STATE 925),
    (sym_with_statement, STATE 925), (sym_function_definition, STATE 925),
    (sym_global_statement, STATE 11814), (sym_nonlocal_statement, STATE 11814),
    (sym_exec_statement, STATE 11814), (sym_type_alias_statement, STATE 11814),
    (sym_parameterized_alias_statement, STATE 11814), (sym_class_definition, STATE 925),
    (sym_trait_definition, STATE 925), (sym_decorated_definition, STATE 925),
    (sym_decorator, STATE 3670), (sym_block, STATE 4539), (sym_pattern, STATE 8086),
    (sym_tuple_pattern, STATE 8101), (sym_list_pattern, STATE 8101),
    (sym_list_splat_pattern, STATE 6819), (sym_as_pattern, STATE 7969),
    (sym_expression, STATE 9883), (sym_primary_expression, STATE 7326),
    (sym_comptime_expression, STATE 7017), (sym_transfer_expression, STATE 7017),
    (sym_not_operator, STATE 7969), (sym_boolean_operator, STATE 7969),
    (sym_binary_operator, STATE 7017), (sym_unary_operator, STATE 7017),
    (sym_comparison_operator, STATE 7969), (sym_lambda, STATE 7969),
    (sym_assignment, STATE 12425), (sym_augmented_assignment, STATE 12425),
    (sym_pattern_list, STATE 8578), (sym_yield, STATE 12425), (sym_attribute, STATE 6836),
    (sym_subscript, STATE 6838), (sym_call, STATE 6845), (sym_mlir_type, STATE 7017),
    (sym_list, STATE 7017), (sym_set, STATE 7017), (sym_tuple, STATE 7017),
    (sym_dictionary, STATE 7017), (sym_struct_literal, STATE 7017),
    (sym_list_comprehension, STATE 7017), (sym_dictionary_comprehension, STATE 7017),
    (sym_set_comprehension, STATE 7017), (sym_generator_expression, STATE 7017),
    (sym_parenthesized_expression, STATE 7017), (sym_conditional_expression, STATE 7969),
    (sym_concatenated_string, STATE 7017), (sym_string, STATE 6751), (sym_await, STATE 7017),
    (aux_sym_module_repeat1, STATE 925), (aux_sym_decorated_definition_repeat1, STATE 3670),
    (sym_identifier, ACTIONS 9), (anon_sym_import, ACTIONS 11), (anon_sym_from, ACTIONS 13),
    (anon_sym_LPAREN, ACTIONS 15), (anon_sym_STAR, ACTIONS 17), (anon_sym_print, ACTIONS 19),
    (anon_sym_comptime, ACTIONS 99), (anon_sym_assert, ACTIONS 23),
    (anon_sym___comptime_assert, ACTIONS 25), (anon_sym_return, ACTIONS 27),
    (anon_sym_del, ACTIONS 29), (anon_sym_raise, ACTIONS 31), (anon_sym_pass, ACTIONS 33),
    (anon_sym_break, ACTIONS 35), (anon_sym_continue, ACTIONS 37),
    (anon_sym___extension, ACTIONS 101), (anon_sym___mlir_region, ACTIONS 103),
    (anon_sym_if, ACTIONS 105), (anon_sym_match, ACTIONS 107), (anon_sym_async, ACTIONS 109),
    (anon_sym_for, ACTIONS 111), (anon_sym_while, ACTIONS 113), (anon_sym_try, ACTIONS 115),
    (anon_sym_with, ACTIONS 117), (anon_sym_def, ACTIONS 119), (anon_sym_fn, ACTIONS 119),
    (anon_sym_LBRACK, ACTIONS 59), (anon_sym_LBRACE, ACTIONS 61), (anon_sym_global, ACTIONS 63),
    (anon_sym_nonlocal, ACTIONS 65), (anon_sym_exec, ACTIONS 67), (anon_sym_type, ACTIONS 69),
    (anon_sym_class, ACTIONS 121), (anon_sym_struct, ACTIONS 121), (anon_sym_mut, ACTIONS 73),
    (anon_sym_out, ACTIONS 73), (anon_sym_trait, ACTIONS 123), (anon_sym_AT, ACTIONS 77),
    (anon_sym_DASH, ACTIONS 79), (anon_sym_PLUS, ACTIONS 79), (anon_sym_ref, ACTIONS 81),
    (anon_sym_var, ACTIONS 81), (anon_sym_not, ACTIONS 83), (anon_sym_TILDE, ACTIONS 79),
    (anon_sym_lambda, ACTIONS 85), (anon_sym_yield, ACTIONS 87), (sym_ellipsis, ACTIONS 89),
    (anon_sym___mlir_type, ACTIONS 91), (sym_integer, ACTIONS 93), (sym_float, ACTIONS 89),
    (anon_sym_await, ACTIONS 95), (sym_true, ACTIONS 93), (sym_false, ACTIONS 93),
    (sym_none, ACTIONS 93), (sym_comment, ACTIONS 3), (sym_line_continuation, ACTIONS 3),
    (sym__dedent, ACTIONS 129), (sym_string_start, ACTIONS 97)]"

definition parse_table_105 :: "(nat \<times> nat) list" where "parse_table_105 = [
    (sym__statement, STATE 925), (sym__simple_statements, STATE 925),
    (sym_import_statement, STATE 11814), (sym_future_import_statement, STATE 11814),
    (sym_import_from_statement, STATE 11814), (sym_print_statement, STATE 11814),
    (sym_assert_statement, STATE 11814), (sym_comptime_assert_statement, STATE 11814),
    (sym_expression_statement, STATE 11814), (sym_tuple_expression, STATE 12425),
    (sym_named_expression, STATE 7969), (sym__named_expression_lhs, STATE 12752),
    (sym_return_statement, STATE 11814), (sym_delete_statement, STATE 11814),
    (sym_raise_statement, STATE 11814), (sym_pass_statement, STATE 11814),
    (sym_break_statement, STATE 11814), (sym_continue_statement, STATE 11814),
    (sym_extension_definition, STATE 925), (sym_mlir_region, STATE 925),
    (sym_comptime_statement, STATE 925), (sym_if_statement, STATE 925),
    (sym_match_statement, STATE 925), (sym_for_statement, STATE 925),
    (sym_while_statement, STATE 925), (sym_try_statement, STATE 925),
    (sym_with_statement, STATE 925), (sym_function_definition, STATE 925),
    (sym_global_statement, STATE 11814), (sym_nonlocal_statement, STATE 11814),
    (sym_exec_statement, STATE 11814), (sym_type_alias_statement, STATE 11814),
    (sym_parameterized_alias_statement, STATE 11814), (sym_class_definition, STATE 925),
    (sym_trait_definition, STATE 925), (sym_decorated_definition, STATE 925),
    (sym_decorator, STATE 3670), (sym_block, STATE 4563), (sym_pattern, STATE 8086),
    (sym_tuple_pattern, STATE 8101), (sym_list_pattern, STATE 8101),
    (sym_list_splat_pattern, STATE 6819), (sym_as_pattern, STATE 7969),
    (sym_expression, STATE 9883), (sym_primary_expression, STATE 7326),
    (sym_comptime_expression, STATE 7017), (sym_transfer_expression, STATE 7017),
    (sym_not_operator, STATE 7969), (sym_boolean_operator, STATE 7969),
    (sym_binary_operator, STATE 7017), (sym_unary_operator, STATE 7017),
    (sym_comparison_operator, STATE 7969), (sym_lambda, STATE 7969),
    (sym_assignment, STATE 12425), (sym_augmented_assignment, STATE 12425),
    (sym_pattern_list, STATE 8578), (sym_yield, STATE 12425), (sym_attribute, STATE 6836),
    (sym_subscript, STATE 6838), (sym_call, STATE 6845), (sym_mlir_type, STATE 7017),
    (sym_list, STATE 7017), (sym_set, STATE 7017), (sym_tuple, STATE 7017),
    (sym_dictionary, STATE 7017), (sym_struct_literal, STATE 7017),
    (sym_list_comprehension, STATE 7017), (sym_dictionary_comprehension, STATE 7017),
    (sym_set_comprehension, STATE 7017), (sym_generator_expression, STATE 7017),
    (sym_parenthesized_expression, STATE 7017), (sym_conditional_expression, STATE 7969),
    (sym_concatenated_string, STATE 7017), (sym_string, STATE 6751), (sym_await, STATE 7017),
    (aux_sym_module_repeat1, STATE 925), (aux_sym_decorated_definition_repeat1, STATE 3670),
    (sym_identifier, ACTIONS 9), (anon_sym_import, ACTIONS 11), (anon_sym_from, ACTIONS 13),
    (anon_sym_LPAREN, ACTIONS 15), (anon_sym_STAR, ACTIONS 17), (anon_sym_print, ACTIONS 19),
    (anon_sym_comptime, ACTIONS 99), (anon_sym_assert, ACTIONS 23),
    (anon_sym___comptime_assert, ACTIONS 25), (anon_sym_return, ACTIONS 27),
    (anon_sym_del, ACTIONS 29), (anon_sym_raise, ACTIONS 31), (anon_sym_pass, ACTIONS 33),
    (anon_sym_break, ACTIONS 35), (anon_sym_continue, ACTIONS 37),
    (anon_sym___extension, ACTIONS 101), (anon_sym___mlir_region, ACTIONS 103),
    (anon_sym_if, ACTIONS 105), (anon_sym_match, ACTIONS 107), (anon_sym_async, ACTIONS 109),
    (anon_sym_for, ACTIONS 111), (anon_sym_while, ACTIONS 113), (anon_sym_try, ACTIONS 115),
    (anon_sym_with, ACTIONS 117), (anon_sym_def, ACTIONS 119), (anon_sym_fn, ACTIONS 119),
    (anon_sym_LBRACK, ACTIONS 59), (anon_sym_LBRACE, ACTIONS 61), (anon_sym_global, ACTIONS 63),
    (anon_sym_nonlocal, ACTIONS 65), (anon_sym_exec, ACTIONS 67), (anon_sym_type, ACTIONS 69),
    (anon_sym_class, ACTIONS 121), (anon_sym_struct, ACTIONS 121), (anon_sym_mut, ACTIONS 73),
    (anon_sym_out, ACTIONS 73), (anon_sym_trait, ACTIONS 123), (anon_sym_AT, ACTIONS 77),
    (anon_sym_DASH, ACTIONS 79), (anon_sym_PLUS, ACTIONS 79), (anon_sym_ref, ACTIONS 81),
    (anon_sym_var, ACTIONS 81), (anon_sym_not, ACTIONS 83), (anon_sym_TILDE, ACTIONS 79),
    (anon_sym_lambda, ACTIONS 85), (anon_sym_yield, ACTIONS 87), (sym_ellipsis, ACTIONS 89),
    (anon_sym___mlir_type, ACTIONS 91), (sym_integer, ACTIONS 93), (sym_float, ACTIONS 89),
    (anon_sym_await, ACTIONS 95), (sym_true, ACTIONS 93), (sym_false, ACTIONS 93),
    (sym_none, ACTIONS 93), (sym_comment, ACTIONS 3), (sym_line_continuation, ACTIONS 3),
    (sym__dedent, ACTIONS 129), (sym_string_start, ACTIONS 97)]"

definition parse_table_106 :: "(nat \<times> nat) list" where "parse_table_106 = [
    (sym__statement, STATE 925), (sym__simple_statements, STATE 925),
    (sym_import_statement, STATE 11814), (sym_future_import_statement, STATE 11814),
    (sym_import_from_statement, STATE 11814), (sym_print_statement, STATE 11814),
    (sym_assert_statement, STATE 11814), (sym_comptime_assert_statement, STATE 11814),
    (sym_expression_statement, STATE 11814), (sym_tuple_expression, STATE 12425),
    (sym_named_expression, STATE 7969), (sym__named_expression_lhs, STATE 12752),
    (sym_return_statement, STATE 11814), (sym_delete_statement, STATE 11814),
    (sym_raise_statement, STATE 11814), (sym_pass_statement, STATE 11814),
    (sym_break_statement, STATE 11814), (sym_continue_statement, STATE 11814),
    (sym_extension_definition, STATE 925), (sym_mlir_region, STATE 925),
    (sym_comptime_statement, STATE 925), (sym_if_statement, STATE 925),
    (sym_match_statement, STATE 925), (sym_for_statement, STATE 925),
    (sym_while_statement, STATE 925), (sym_try_statement, STATE 925),
    (sym_with_statement, STATE 925), (sym_function_definition, STATE 925),
    (sym_global_statement, STATE 11814), (sym_nonlocal_statement, STATE 11814),
    (sym_exec_statement, STATE 11814), (sym_type_alias_statement, STATE 11814),
    (sym_parameterized_alias_statement, STATE 11814), (sym_class_definition, STATE 925),
    (sym_trait_definition, STATE 925), (sym_decorated_definition, STATE 925),
    (sym_decorator, STATE 3670), (sym_block, STATE 4567), (sym_pattern, STATE 8086),
    (sym_tuple_pattern, STATE 8101), (sym_list_pattern, STATE 8101),
    (sym_list_splat_pattern, STATE 6819), (sym_as_pattern, STATE 7969),
    (sym_expression, STATE 9883), (sym_primary_expression, STATE 7326),
    (sym_comptime_expression, STATE 7017), (sym_transfer_expression, STATE 7017),
    (sym_not_operator, STATE 7969), (sym_boolean_operator, STATE 7969),
    (sym_binary_operator, STATE 7017), (sym_unary_operator, STATE 7017),
    (sym_comparison_operator, STATE 7969), (sym_lambda, STATE 7969),
    (sym_assignment, STATE 12425), (sym_augmented_assignment, STATE 12425),
    (sym_pattern_list, STATE 8578), (sym_yield, STATE 12425), (sym_attribute, STATE 6836),
    (sym_subscript, STATE 6838), (sym_call, STATE 6845), (sym_mlir_type, STATE 7017),
    (sym_list, STATE 7017), (sym_set, STATE 7017), (sym_tuple, STATE 7017),
    (sym_dictionary, STATE 7017), (sym_struct_literal, STATE 7017),
    (sym_list_comprehension, STATE 7017), (sym_dictionary_comprehension, STATE 7017),
    (sym_set_comprehension, STATE 7017), (sym_generator_expression, STATE 7017),
    (sym_parenthesized_expression, STATE 7017), (sym_conditional_expression, STATE 7969),
    (sym_concatenated_string, STATE 7017), (sym_string, STATE 6751), (sym_await, STATE 7017),
    (aux_sym_module_repeat1, STATE 925), (aux_sym_decorated_definition_repeat1, STATE 3670),
    (sym_identifier, ACTIONS 9), (anon_sym_import, ACTIONS 11), (anon_sym_from, ACTIONS 13),
    (anon_sym_LPAREN, ACTIONS 15), (anon_sym_STAR, ACTIONS 17), (anon_sym_print, ACTIONS 19),
    (anon_sym_comptime, ACTIONS 99), (anon_sym_assert, ACTIONS 23),
    (anon_sym___comptime_assert, ACTIONS 25), (anon_sym_return, ACTIONS 27),
    (anon_sym_del, ACTIONS 29), (anon_sym_raise, ACTIONS 31), (anon_sym_pass, ACTIONS 33),
    (anon_sym_break, ACTIONS 35), (anon_sym_continue, ACTIONS 37),
    (anon_sym___extension, ACTIONS 101), (anon_sym___mlir_region, ACTIONS 103),
    (anon_sym_if, ACTIONS 105), (anon_sym_match, ACTIONS 107), (anon_sym_async, ACTIONS 109),
    (anon_sym_for, ACTIONS 111), (anon_sym_while, ACTIONS 113), (anon_sym_try, ACTIONS 115),
    (anon_sym_with, ACTIONS 117), (anon_sym_def, ACTIONS 119), (anon_sym_fn, ACTIONS 119),
    (anon_sym_LBRACK, ACTIONS 59), (anon_sym_LBRACE, ACTIONS 61), (anon_sym_global, ACTIONS 63),
    (anon_sym_nonlocal, ACTIONS 65), (anon_sym_exec, ACTIONS 67), (anon_sym_type, ACTIONS 69),
    (anon_sym_class, ACTIONS 121), (anon_sym_struct, ACTIONS 121), (anon_sym_mut, ACTIONS 73),
    (anon_sym_out, ACTIONS 73), (anon_sym_trait, ACTIONS 123), (anon_sym_AT, ACTIONS 77),
    (anon_sym_DASH, ACTIONS 79), (anon_sym_PLUS, ACTIONS 79), (anon_sym_ref, ACTIONS 81),
    (anon_sym_var, ACTIONS 81), (anon_sym_not, ACTIONS 83), (anon_sym_TILDE, ACTIONS 79),
    (anon_sym_lambda, ACTIONS 85), (anon_sym_yield, ACTIONS 87), (sym_ellipsis, ACTIONS 89),
    (anon_sym___mlir_type, ACTIONS 91), (sym_integer, ACTIONS 93), (sym_float, ACTIONS 89),
    (anon_sym_await, ACTIONS 95), (sym_true, ACTIONS 93), (sym_false, ACTIONS 93),
    (sym_none, ACTIONS 93), (sym_comment, ACTIONS 3), (sym_line_continuation, ACTIONS 3),
    (sym__dedent, ACTIONS 129), (sym_string_start, ACTIONS 97)]"

definition parse_table_107 :: "(nat \<times> nat) list" where "parse_table_107 = [
    (sym__statement, STATE 925), (sym__simple_statements, STATE 925),
    (sym_import_statement, STATE 11814), (sym_future_import_statement, STATE 11814),
    (sym_import_from_statement, STATE 11814), (sym_print_statement, STATE 11814),
    (sym_assert_statement, STATE 11814), (sym_comptime_assert_statement, STATE 11814),
    (sym_expression_statement, STATE 11814), (sym_tuple_expression, STATE 12425),
    (sym_named_expression, STATE 7969), (sym__named_expression_lhs, STATE 12752),
    (sym_return_statement, STATE 11814), (sym_delete_statement, STATE 11814),
    (sym_raise_statement, STATE 11814), (sym_pass_statement, STATE 11814),
    (sym_break_statement, STATE 11814), (sym_continue_statement, STATE 11814),
    (sym_extension_definition, STATE 925), (sym_mlir_region, STATE 925),
    (sym_comptime_statement, STATE 925), (sym_if_statement, STATE 925),
    (sym_match_statement, STATE 925), (sym_for_statement, STATE 925),
    (sym_while_statement, STATE 925), (sym_try_statement, STATE 925),
    (sym_with_statement, STATE 925), (sym_function_definition, STATE 925),
    (sym_global_statement, STATE 11814), (sym_nonlocal_statement, STATE 11814),
    (sym_exec_statement, STATE 11814), (sym_type_alias_statement, STATE 11814),
    (sym_parameterized_alias_statement, STATE 11814), (sym_class_definition, STATE 925),
    (sym_trait_definition, STATE 925), (sym_decorated_definition, STATE 925),
    (sym_decorator, STATE 3670), (sym_block, STATE 4589), (sym_pattern, STATE 8086),
    (sym_tuple_pattern, STATE 8101), (sym_list_pattern, STATE 8101),
    (sym_list_splat_pattern, STATE 6819), (sym_as_pattern, STATE 7969),
    (sym_expression, STATE 9883), (sym_primary_expression, STATE 7326),
    (sym_comptime_expression, STATE 7017), (sym_transfer_expression, STATE 7017),
    (sym_not_operator, STATE 7969), (sym_boolean_operator, STATE 7969),
    (sym_binary_operator, STATE 7017), (sym_unary_operator, STATE 7017),
    (sym_comparison_operator, STATE 7969), (sym_lambda, STATE 7969),
    (sym_assignment, STATE 12425), (sym_augmented_assignment, STATE 12425),
    (sym_pattern_list, STATE 8578), (sym_yield, STATE 12425), (sym_attribute, STATE 6836),
    (sym_subscript, STATE 6838), (sym_call, STATE 6845), (sym_mlir_type, STATE 7017),
    (sym_list, STATE 7017), (sym_set, STATE 7017), (sym_tuple, STATE 7017),
    (sym_dictionary, STATE 7017), (sym_struct_literal, STATE 7017),
    (sym_list_comprehension, STATE 7017), (sym_dictionary_comprehension, STATE 7017),
    (sym_set_comprehension, STATE 7017), (sym_generator_expression, STATE 7017),
    (sym_parenthesized_expression, STATE 7017), (sym_conditional_expression, STATE 7969),
    (sym_concatenated_string, STATE 7017), (sym_string, STATE 6751), (sym_await, STATE 7017),
    (aux_sym_module_repeat1, STATE 925), (aux_sym_decorated_definition_repeat1, STATE 3670),
    (sym_identifier, ACTIONS 9), (anon_sym_import, ACTIONS 11), (anon_sym_from, ACTIONS 13),
    (anon_sym_LPAREN, ACTIONS 15), (anon_sym_STAR, ACTIONS 17), (anon_sym_print, ACTIONS 19),
    (anon_sym_comptime, ACTIONS 99), (anon_sym_assert, ACTIONS 23),
    (anon_sym___comptime_assert, ACTIONS 25), (anon_sym_return, ACTIONS 27),
    (anon_sym_del, ACTIONS 29), (anon_sym_raise, ACTIONS 31), (anon_sym_pass, ACTIONS 33),
    (anon_sym_break, ACTIONS 35), (anon_sym_continue, ACTIONS 37),
    (anon_sym___extension, ACTIONS 101), (anon_sym___mlir_region, ACTIONS 103),
    (anon_sym_if, ACTIONS 105), (anon_sym_match, ACTIONS 107), (anon_sym_async, ACTIONS 109),
    (anon_sym_for, ACTIONS 111), (anon_sym_while, ACTIONS 113), (anon_sym_try, ACTIONS 115),
    (anon_sym_with, ACTIONS 117), (anon_sym_def, ACTIONS 119), (anon_sym_fn, ACTIONS 119),
    (anon_sym_LBRACK, ACTIONS 59), (anon_sym_LBRACE, ACTIONS 61), (anon_sym_global, ACTIONS 63),
    (anon_sym_nonlocal, ACTIONS 65), (anon_sym_exec, ACTIONS 67), (anon_sym_type, ACTIONS 69),
    (anon_sym_class, ACTIONS 121), (anon_sym_struct, ACTIONS 121), (anon_sym_mut, ACTIONS 73),
    (anon_sym_out, ACTIONS 73), (anon_sym_trait, ACTIONS 123), (anon_sym_AT, ACTIONS 77),
    (anon_sym_DASH, ACTIONS 79), (anon_sym_PLUS, ACTIONS 79), (anon_sym_ref, ACTIONS 81),
    (anon_sym_var, ACTIONS 81), (anon_sym_not, ACTIONS 83), (anon_sym_TILDE, ACTIONS 79),
    (anon_sym_lambda, ACTIONS 85), (anon_sym_yield, ACTIONS 87), (sym_ellipsis, ACTIONS 89),
    (anon_sym___mlir_type, ACTIONS 91), (sym_integer, ACTIONS 93), (sym_float, ACTIONS 89),
    (anon_sym_await, ACTIONS 95), (sym_true, ACTIONS 93), (sym_false, ACTIONS 93),
    (sym_none, ACTIONS 93), (sym_comment, ACTIONS 3), (sym_line_continuation, ACTIONS 3),
    (sym__dedent, ACTIONS 129), (sym_string_start, ACTIONS 97)]"

definition parse_table_108 :: "(nat \<times> nat) list" where "parse_table_108 = [
    (sym__statement, STATE 925), (sym__simple_statements, STATE 925),
    (sym_import_statement, STATE 11814), (sym_future_import_statement, STATE 11814),
    (sym_import_from_statement, STATE 11814), (sym_print_statement, STATE 11814),
    (sym_assert_statement, STATE 11814), (sym_comptime_assert_statement, STATE 11814),
    (sym_expression_statement, STATE 11814), (sym_tuple_expression, STATE 12425),
    (sym_named_expression, STATE 7969), (sym__named_expression_lhs, STATE 12752),
    (sym_return_statement, STATE 11814), (sym_delete_statement, STATE 11814),
    (sym_raise_statement, STATE 11814), (sym_pass_statement, STATE 11814),
    (sym_break_statement, STATE 11814), (sym_continue_statement, STATE 11814),
    (sym_extension_definition, STATE 925), (sym_mlir_region, STATE 925),
    (sym_comptime_statement, STATE 925), (sym_if_statement, STATE 925),
    (sym_match_statement, STATE 925), (sym_for_statement, STATE 925),
    (sym_while_statement, STATE 925), (sym_try_statement, STATE 925),
    (sym_with_statement, STATE 925), (sym_function_definition, STATE 925),
    (sym_global_statement, STATE 11814), (sym_nonlocal_statement, STATE 11814),
    (sym_exec_statement, STATE 11814), (sym_type_alias_statement, STATE 11814),
    (sym_parameterized_alias_statement, STATE 11814), (sym_class_definition, STATE 925),
    (sym_trait_definition, STATE 925), (sym_decorated_definition, STATE 925),
    (sym_decorator, STATE 3670), (sym_block, STATE 4597), (sym_pattern, STATE 8086),
    (sym_tuple_pattern, STATE 8101), (sym_list_pattern, STATE 8101),
    (sym_list_splat_pattern, STATE 6819), (sym_as_pattern, STATE 7969),
    (sym_expression, STATE 9883), (sym_primary_expression, STATE 7326),
    (sym_comptime_expression, STATE 7017), (sym_transfer_expression, STATE 7017),
    (sym_not_operator, STATE 7969), (sym_boolean_operator, STATE 7969),
    (sym_binary_operator, STATE 7017), (sym_unary_operator, STATE 7017),
    (sym_comparison_operator, STATE 7969), (sym_lambda, STATE 7969),
    (sym_assignment, STATE 12425), (sym_augmented_assignment, STATE 12425),
    (sym_pattern_list, STATE 8578), (sym_yield, STATE 12425), (sym_attribute, STATE 6836),
    (sym_subscript, STATE 6838), (sym_call, STATE 6845), (sym_mlir_type, STATE 7017),
    (sym_list, STATE 7017), (sym_set, STATE 7017), (sym_tuple, STATE 7017),
    (sym_dictionary, STATE 7017), (sym_struct_literal, STATE 7017),
    (sym_list_comprehension, STATE 7017), (sym_dictionary_comprehension, STATE 7017),
    (sym_set_comprehension, STATE 7017), (sym_generator_expression, STATE 7017),
    (sym_parenthesized_expression, STATE 7017), (sym_conditional_expression, STATE 7969),
    (sym_concatenated_string, STATE 7017), (sym_string, STATE 6751), (sym_await, STATE 7017),
    (aux_sym_module_repeat1, STATE 925), (aux_sym_decorated_definition_repeat1, STATE 3670),
    (sym_identifier, ACTIONS 9), (anon_sym_import, ACTIONS 11), (anon_sym_from, ACTIONS 13),
    (anon_sym_LPAREN, ACTIONS 15), (anon_sym_STAR, ACTIONS 17), (anon_sym_print, ACTIONS 19),
    (anon_sym_comptime, ACTIONS 99), (anon_sym_assert, ACTIONS 23),
    (anon_sym___comptime_assert, ACTIONS 25), (anon_sym_return, ACTIONS 27),
    (anon_sym_del, ACTIONS 29), (anon_sym_raise, ACTIONS 31), (anon_sym_pass, ACTIONS 33),
    (anon_sym_break, ACTIONS 35), (anon_sym_continue, ACTIONS 37),
    (anon_sym___extension, ACTIONS 101), (anon_sym___mlir_region, ACTIONS 103),
    (anon_sym_if, ACTIONS 105), (anon_sym_match, ACTIONS 107), (anon_sym_async, ACTIONS 109),
    (anon_sym_for, ACTIONS 111), (anon_sym_while, ACTIONS 113), (anon_sym_try, ACTIONS 115),
    (anon_sym_with, ACTIONS 117), (anon_sym_def, ACTIONS 119), (anon_sym_fn, ACTIONS 119),
    (anon_sym_LBRACK, ACTIONS 59), (anon_sym_LBRACE, ACTIONS 61), (anon_sym_global, ACTIONS 63),
    (anon_sym_nonlocal, ACTIONS 65), (anon_sym_exec, ACTIONS 67), (anon_sym_type, ACTIONS 69),
    (anon_sym_class, ACTIONS 121), (anon_sym_struct, ACTIONS 121), (anon_sym_mut, ACTIONS 73),
    (anon_sym_out, ACTIONS 73), (anon_sym_trait, ACTIONS 123), (anon_sym_AT, ACTIONS 77),
    (anon_sym_DASH, ACTIONS 79), (anon_sym_PLUS, ACTIONS 79), (anon_sym_ref, ACTIONS 81),
    (anon_sym_var, ACTIONS 81), (anon_sym_not, ACTIONS 83), (anon_sym_TILDE, ACTIONS 79),
    (anon_sym_lambda, ACTIONS 85), (anon_sym_yield, ACTIONS 87), (sym_ellipsis, ACTIONS 89),
    (anon_sym___mlir_type, ACTIONS 91), (sym_integer, ACTIONS 93), (sym_float, ACTIONS 89),
    (anon_sym_await, ACTIONS 95), (sym_true, ACTIONS 93), (sym_false, ACTIONS 93),
    (sym_none, ACTIONS 93), (sym_comment, ACTIONS 3), (sym_line_continuation, ACTIONS 3),
    (sym__dedent, ACTIONS 129), (sym_string_start, ACTIONS 97)]"

definition parse_table_109 :: "(nat \<times> nat) list" where "parse_table_109 = [
    (sym__statement, STATE 925), (sym__simple_statements, STATE 925),
    (sym_import_statement, STATE 11814), (sym_future_import_statement, STATE 11814),
    (sym_import_from_statement, STATE 11814), (sym_print_statement, STATE 11814),
    (sym_assert_statement, STATE 11814), (sym_comptime_assert_statement, STATE 11814),
    (sym_expression_statement, STATE 11814), (sym_tuple_expression, STATE 12425),
    (sym_named_expression, STATE 7969), (sym__named_expression_lhs, STATE 12752),
    (sym_return_statement, STATE 11814), (sym_delete_statement, STATE 11814),
    (sym_raise_statement, STATE 11814), (sym_pass_statement, STATE 11814),
    (sym_break_statement, STATE 11814), (sym_continue_statement, STATE 11814),
    (sym_extension_definition, STATE 925), (sym_mlir_region, STATE 925),
    (sym_comptime_statement, STATE 925), (sym_if_statement, STATE 925),
    (sym_match_statement, STATE 925), (sym_for_statement, STATE 925),
    (sym_while_statement, STATE 925), (sym_try_statement, STATE 925),
    (sym_with_statement, STATE 925), (sym_function_definition, STATE 925),
    (sym_global_statement, STATE 11814), (sym_nonlocal_statement, STATE 11814),
    (sym_exec_statement, STATE 11814), (sym_type_alias_statement, STATE 11814),
    (sym_parameterized_alias_statement, STATE 11814), (sym_class_definition, STATE 925),
    (sym_trait_definition, STATE 925), (sym_decorated_definition, STATE 925),
    (sym_decorator, STATE 3670), (sym_block, STATE 4601), (sym_pattern, STATE 8086),
    (sym_tuple_pattern, STATE 8101), (sym_list_pattern, STATE 8101),
    (sym_list_splat_pattern, STATE 6819), (sym_as_pattern, STATE 7969),
    (sym_expression, STATE 9883), (sym_primary_expression, STATE 7326),
    (sym_comptime_expression, STATE 7017), (sym_transfer_expression, STATE 7017),
    (sym_not_operator, STATE 7969), (sym_boolean_operator, STATE 7969),
    (sym_binary_operator, STATE 7017), (sym_unary_operator, STATE 7017),
    (sym_comparison_operator, STATE 7969), (sym_lambda, STATE 7969),
    (sym_assignment, STATE 12425), (sym_augmented_assignment, STATE 12425),
    (sym_pattern_list, STATE 8578), (sym_yield, STATE 12425), (sym_attribute, STATE 6836),
    (sym_subscript, STATE 6838), (sym_call, STATE 6845), (sym_mlir_type, STATE 7017),
    (sym_list, STATE 7017), (sym_set, STATE 7017), (sym_tuple, STATE 7017),
    (sym_dictionary, STATE 7017), (sym_struct_literal, STATE 7017),
    (sym_list_comprehension, STATE 7017), (sym_dictionary_comprehension, STATE 7017),
    (sym_set_comprehension, STATE 7017), (sym_generator_expression, STATE 7017),
    (sym_parenthesized_expression, STATE 7017), (sym_conditional_expression, STATE 7969),
    (sym_concatenated_string, STATE 7017), (sym_string, STATE 6751), (sym_await, STATE 7017),
    (aux_sym_module_repeat1, STATE 925), (aux_sym_decorated_definition_repeat1, STATE 3670),
    (sym_identifier, ACTIONS 9), (anon_sym_import, ACTIONS 11), (anon_sym_from, ACTIONS 13),
    (anon_sym_LPAREN, ACTIONS 15), (anon_sym_STAR, ACTIONS 17), (anon_sym_print, ACTIONS 19),
    (anon_sym_comptime, ACTIONS 99), (anon_sym_assert, ACTIONS 23),
    (anon_sym___comptime_assert, ACTIONS 25), (anon_sym_return, ACTIONS 27),
    (anon_sym_del, ACTIONS 29), (anon_sym_raise, ACTIONS 31), (anon_sym_pass, ACTIONS 33),
    (anon_sym_break, ACTIONS 35), (anon_sym_continue, ACTIONS 37),
    (anon_sym___extension, ACTIONS 101), (anon_sym___mlir_region, ACTIONS 103),
    (anon_sym_if, ACTIONS 105), (anon_sym_match, ACTIONS 107), (anon_sym_async, ACTIONS 109),
    (anon_sym_for, ACTIONS 111), (anon_sym_while, ACTIONS 113), (anon_sym_try, ACTIONS 115),
    (anon_sym_with, ACTIONS 117), (anon_sym_def, ACTIONS 119), (anon_sym_fn, ACTIONS 119),
    (anon_sym_LBRACK, ACTIONS 59), (anon_sym_LBRACE, ACTIONS 61), (anon_sym_global, ACTIONS 63),
    (anon_sym_nonlocal, ACTIONS 65), (anon_sym_exec, ACTIONS 67), (anon_sym_type, ACTIONS 69),
    (anon_sym_class, ACTIONS 121), (anon_sym_struct, ACTIONS 121), (anon_sym_mut, ACTIONS 73),
    (anon_sym_out, ACTIONS 73), (anon_sym_trait, ACTIONS 123), (anon_sym_AT, ACTIONS 77),
    (anon_sym_DASH, ACTIONS 79), (anon_sym_PLUS, ACTIONS 79), (anon_sym_ref, ACTIONS 81),
    (anon_sym_var, ACTIONS 81), (anon_sym_not, ACTIONS 83), (anon_sym_TILDE, ACTIONS 79),
    (anon_sym_lambda, ACTIONS 85), (anon_sym_yield, ACTIONS 87), (sym_ellipsis, ACTIONS 89),
    (anon_sym___mlir_type, ACTIONS 91), (sym_integer, ACTIONS 93), (sym_float, ACTIONS 89),
    (anon_sym_await, ACTIONS 95), (sym_true, ACTIONS 93), (sym_false, ACTIONS 93),
    (sym_none, ACTIONS 93), (sym_comment, ACTIONS 3), (sym_line_continuation, ACTIONS 3),
    (sym__dedent, ACTIONS 129), (sym_string_start, ACTIONS 97)]"

definition parse_table_110 :: "(nat \<times> nat) list" where "parse_table_110 = [
    (sym__statement, STATE 925), (sym__simple_statements, STATE 925),
    (sym_import_statement, STATE 11814), (sym_future_import_statement, STATE 11814),
    (sym_import_from_statement, STATE 11814), (sym_print_statement, STATE 11814),
    (sym_assert_statement, STATE 11814), (sym_comptime_assert_statement, STATE 11814),
    (sym_expression_statement, STATE 11814), (sym_tuple_expression, STATE 12425),
    (sym_named_expression, STATE 7969), (sym__named_expression_lhs, STATE 12752),
    (sym_return_statement, STATE 11814), (sym_delete_statement, STATE 11814),
    (sym_raise_statement, STATE 11814), (sym_pass_statement, STATE 11814),
    (sym_break_statement, STATE 11814), (sym_continue_statement, STATE 11814),
    (sym_extension_definition, STATE 925), (sym_mlir_region, STATE 925),
    (sym_comptime_statement, STATE 925), (sym_if_statement, STATE 925),
    (sym_match_statement, STATE 925), (sym_for_statement, STATE 925),
    (sym_while_statement, STATE 925), (sym_try_statement, STATE 925),
    (sym_with_statement, STATE 925), (sym_function_definition, STATE 925),
    (sym_global_statement, STATE 11814), (sym_nonlocal_statement, STATE 11814),
    (sym_exec_statement, STATE 11814), (sym_type_alias_statement, STATE 11814),
    (sym_parameterized_alias_statement, STATE 11814), (sym_class_definition, STATE 925),
    (sym_trait_definition, STATE 925), (sym_decorated_definition, STATE 925),
    (sym_decorator, STATE 3670), (sym_block, STATE 4605), (sym_pattern, STATE 8086),
    (sym_tuple_pattern, STATE 8101), (sym_list_pattern, STATE 8101),
    (sym_list_splat_pattern, STATE 6819), (sym_as_pattern, STATE 7969),
    (sym_expression, STATE 9883), (sym_primary_expression, STATE 7326),
    (sym_comptime_expression, STATE 7017), (sym_transfer_expression, STATE 7017),
    (sym_not_operator, STATE 7969), (sym_boolean_operator, STATE 7969),
    (sym_binary_operator, STATE 7017), (sym_unary_operator, STATE 7017),
    (sym_comparison_operator, STATE 7969), (sym_lambda, STATE 7969),
    (sym_assignment, STATE 12425), (sym_augmented_assignment, STATE 12425),
    (sym_pattern_list, STATE 8578), (sym_yield, STATE 12425), (sym_attribute, STATE 6836),
    (sym_subscript, STATE 6838), (sym_call, STATE 6845), (sym_mlir_type, STATE 7017),
    (sym_list, STATE 7017), (sym_set, STATE 7017), (sym_tuple, STATE 7017),
    (sym_dictionary, STATE 7017), (sym_struct_literal, STATE 7017),
    (sym_list_comprehension, STATE 7017), (sym_dictionary_comprehension, STATE 7017),
    (sym_set_comprehension, STATE 7017), (sym_generator_expression, STATE 7017),
    (sym_parenthesized_expression, STATE 7017), (sym_conditional_expression, STATE 7969),
    (sym_concatenated_string, STATE 7017), (sym_string, STATE 6751), (sym_await, STATE 7017),
    (aux_sym_module_repeat1, STATE 925), (aux_sym_decorated_definition_repeat1, STATE 3670),
    (sym_identifier, ACTIONS 9), (anon_sym_import, ACTIONS 11), (anon_sym_from, ACTIONS 13),
    (anon_sym_LPAREN, ACTIONS 15), (anon_sym_STAR, ACTIONS 17), (anon_sym_print, ACTIONS 19),
    (anon_sym_comptime, ACTIONS 99), (anon_sym_assert, ACTIONS 23),
    (anon_sym___comptime_assert, ACTIONS 25), (anon_sym_return, ACTIONS 27),
    (anon_sym_del, ACTIONS 29), (anon_sym_raise, ACTIONS 31), (anon_sym_pass, ACTIONS 33),
    (anon_sym_break, ACTIONS 35), (anon_sym_continue, ACTIONS 37),
    (anon_sym___extension, ACTIONS 101), (anon_sym___mlir_region, ACTIONS 103),
    (anon_sym_if, ACTIONS 105), (anon_sym_match, ACTIONS 107), (anon_sym_async, ACTIONS 109),
    (anon_sym_for, ACTIONS 111), (anon_sym_while, ACTIONS 113), (anon_sym_try, ACTIONS 115),
    (anon_sym_with, ACTIONS 117), (anon_sym_def, ACTIONS 119), (anon_sym_fn, ACTIONS 119),
    (anon_sym_LBRACK, ACTIONS 59), (anon_sym_LBRACE, ACTIONS 61), (anon_sym_global, ACTIONS 63),
    (anon_sym_nonlocal, ACTIONS 65), (anon_sym_exec, ACTIONS 67), (anon_sym_type, ACTIONS 69),
    (anon_sym_class, ACTIONS 121), (anon_sym_struct, ACTIONS 121), (anon_sym_mut, ACTIONS 73),
    (anon_sym_out, ACTIONS 73), (anon_sym_trait, ACTIONS 123), (anon_sym_AT, ACTIONS 77),
    (anon_sym_DASH, ACTIONS 79), (anon_sym_PLUS, ACTIONS 79), (anon_sym_ref, ACTIONS 81),
    (anon_sym_var, ACTIONS 81), (anon_sym_not, ACTIONS 83), (anon_sym_TILDE, ACTIONS 79),
    (anon_sym_lambda, ACTIONS 85), (anon_sym_yield, ACTIONS 87), (sym_ellipsis, ACTIONS 89),
    (anon_sym___mlir_type, ACTIONS 91), (sym_integer, ACTIONS 93), (sym_float, ACTIONS 89),
    (anon_sym_await, ACTIONS 95), (sym_true, ACTIONS 93), (sym_false, ACTIONS 93),
    (sym_none, ACTIONS 93), (sym_comment, ACTIONS 3), (sym_line_continuation, ACTIONS 3),
    (sym__dedent, ACTIONS 129), (sym_string_start, ACTIONS 97)]"

definition parse_table_111 :: "(nat \<times> nat) list" where "parse_table_111 = [
    (sym__statement, STATE 925), (sym__simple_statements, STATE 925),
    (sym_import_statement, STATE 11814), (sym_future_import_statement, STATE 11814),
    (sym_import_from_statement, STATE 11814), (sym_print_statement, STATE 11814),
    (sym_assert_statement, STATE 11814), (sym_comptime_assert_statement, STATE 11814),
    (sym_expression_statement, STATE 11814), (sym_tuple_expression, STATE 12425),
    (sym_named_expression, STATE 7969), (sym__named_expression_lhs, STATE 12752),
    (sym_return_statement, STATE 11814), (sym_delete_statement, STATE 11814),
    (sym_raise_statement, STATE 11814), (sym_pass_statement, STATE 11814),
    (sym_break_statement, STATE 11814), (sym_continue_statement, STATE 11814),
    (sym_extension_definition, STATE 925), (sym_mlir_region, STATE 925),
    (sym_comptime_statement, STATE 925), (sym_if_statement, STATE 925),
    (sym_match_statement, STATE 925), (sym_for_statement, STATE 925),
    (sym_while_statement, STATE 925), (sym_try_statement, STATE 925),
    (sym_with_statement, STATE 925), (sym_function_definition, STATE 925),
    (sym_global_statement, STATE 11814), (sym_nonlocal_statement, STATE 11814),
    (sym_exec_statement, STATE 11814), (sym_type_alias_statement, STATE 11814),
    (sym_parameterized_alias_statement, STATE 11814), (sym_class_definition, STATE 925),
    (sym_trait_definition, STATE 925), (sym_decorated_definition, STATE 925),
    (sym_decorator, STATE 3670), (sym_block, STATE 4626), (sym_pattern, STATE 8086),
    (sym_tuple_pattern, STATE 8101), (sym_list_pattern, STATE 8101),
    (sym_list_splat_pattern, STATE 6819), (sym_as_pattern, STATE 7969),
    (sym_expression, STATE 9883), (sym_primary_expression, STATE 7326),
    (sym_comptime_expression, STATE 7017), (sym_transfer_expression, STATE 7017),
    (sym_not_operator, STATE 7969), (sym_boolean_operator, STATE 7969),
    (sym_binary_operator, STATE 7017), (sym_unary_operator, STATE 7017),
    (sym_comparison_operator, STATE 7969), (sym_lambda, STATE 7969),
    (sym_assignment, STATE 12425), (sym_augmented_assignment, STATE 12425),
    (sym_pattern_list, STATE 8578), (sym_yield, STATE 12425), (sym_attribute, STATE 6836),
    (sym_subscript, STATE 6838), (sym_call, STATE 6845), (sym_mlir_type, STATE 7017),
    (sym_list, STATE 7017), (sym_set, STATE 7017), (sym_tuple, STATE 7017),
    (sym_dictionary, STATE 7017), (sym_struct_literal, STATE 7017),
    (sym_list_comprehension, STATE 7017), (sym_dictionary_comprehension, STATE 7017),
    (sym_set_comprehension, STATE 7017), (sym_generator_expression, STATE 7017),
    (sym_parenthesized_expression, STATE 7017), (sym_conditional_expression, STATE 7969),
    (sym_concatenated_string, STATE 7017), (sym_string, STATE 6751), (sym_await, STATE 7017),
    (aux_sym_module_repeat1, STATE 925), (aux_sym_decorated_definition_repeat1, STATE 3670),
    (sym_identifier, ACTIONS 9), (anon_sym_import, ACTIONS 11), (anon_sym_from, ACTIONS 13),
    (anon_sym_LPAREN, ACTIONS 15), (anon_sym_STAR, ACTIONS 17), (anon_sym_print, ACTIONS 19),
    (anon_sym_comptime, ACTIONS 99), (anon_sym_assert, ACTIONS 23),
    (anon_sym___comptime_assert, ACTIONS 25), (anon_sym_return, ACTIONS 27),
    (anon_sym_del, ACTIONS 29), (anon_sym_raise, ACTIONS 31), (anon_sym_pass, ACTIONS 33),
    (anon_sym_break, ACTIONS 35), (anon_sym_continue, ACTIONS 37),
    (anon_sym___extension, ACTIONS 101), (anon_sym___mlir_region, ACTIONS 103),
    (anon_sym_if, ACTIONS 105), (anon_sym_match, ACTIONS 107), (anon_sym_async, ACTIONS 109),
    (anon_sym_for, ACTIONS 111), (anon_sym_while, ACTIONS 113), (anon_sym_try, ACTIONS 115),
    (anon_sym_with, ACTIONS 117), (anon_sym_def, ACTIONS 119), (anon_sym_fn, ACTIONS 119),
    (anon_sym_LBRACK, ACTIONS 59), (anon_sym_LBRACE, ACTIONS 61), (anon_sym_global, ACTIONS 63),
    (anon_sym_nonlocal, ACTIONS 65), (anon_sym_exec, ACTIONS 67), (anon_sym_type, ACTIONS 69),
    (anon_sym_class, ACTIONS 121), (anon_sym_struct, ACTIONS 121), (anon_sym_mut, ACTIONS 73),
    (anon_sym_out, ACTIONS 73), (anon_sym_trait, ACTIONS 123), (anon_sym_AT, ACTIONS 77),
    (anon_sym_DASH, ACTIONS 79), (anon_sym_PLUS, ACTIONS 79), (anon_sym_ref, ACTIONS 81),
    (anon_sym_var, ACTIONS 81), (anon_sym_not, ACTIONS 83), (anon_sym_TILDE, ACTIONS 79),
    (anon_sym_lambda, ACTIONS 85), (anon_sym_yield, ACTIONS 87), (sym_ellipsis, ACTIONS 89),
    (anon_sym___mlir_type, ACTIONS 91), (sym_integer, ACTIONS 93), (sym_float, ACTIONS 89),
    (anon_sym_await, ACTIONS 95), (sym_true, ACTIONS 93), (sym_false, ACTIONS 93),
    (sym_none, ACTIONS 93), (sym_comment, ACTIONS 3), (sym_line_continuation, ACTIONS 3),
    (sym__dedent, ACTIONS 129), (sym_string_start, ACTIONS 97)]"

definition parse_table_112 :: "(nat \<times> nat) list" where "parse_table_112 = [
    (sym__statement, STATE 925), (sym__simple_statements, STATE 925),
    (sym_import_statement, STATE 11814), (sym_future_import_statement, STATE 11814),
    (sym_import_from_statement, STATE 11814), (sym_print_statement, STATE 11814),
    (sym_assert_statement, STATE 11814), (sym_comptime_assert_statement, STATE 11814),
    (sym_expression_statement, STATE 11814), (sym_tuple_expression, STATE 12425),
    (sym_named_expression, STATE 7969), (sym__named_expression_lhs, STATE 12752),
    (sym_return_statement, STATE 11814), (sym_delete_statement, STATE 11814),
    (sym_raise_statement, STATE 11814), (sym_pass_statement, STATE 11814),
    (sym_break_statement, STATE 11814), (sym_continue_statement, STATE 11814),
    (sym_extension_definition, STATE 925), (sym_mlir_region, STATE 925),
    (sym_comptime_statement, STATE 925), (sym_if_statement, STATE 925),
    (sym_match_statement, STATE 925), (sym_for_statement, STATE 925),
    (sym_while_statement, STATE 925), (sym_try_statement, STATE 925),
    (sym_with_statement, STATE 925), (sym_function_definition, STATE 925),
    (sym_global_statement, STATE 11814), (sym_nonlocal_statement, STATE 11814),
    (sym_exec_statement, STATE 11814), (sym_type_alias_statement, STATE 11814),
    (sym_parameterized_alias_statement, STATE 11814), (sym_class_definition, STATE 925),
    (sym_trait_definition, STATE 925), (sym_decorated_definition, STATE 925),
    (sym_decorator, STATE 3670), (sym_block, STATE 4649), (sym_pattern, STATE 8086),
    (sym_tuple_pattern, STATE 8101), (sym_list_pattern, STATE 8101),
    (sym_list_splat_pattern, STATE 6819), (sym_as_pattern, STATE 7969),
    (sym_expression, STATE 9883), (sym_primary_expression, STATE 7326),
    (sym_comptime_expression, STATE 7017), (sym_transfer_expression, STATE 7017),
    (sym_not_operator, STATE 7969), (sym_boolean_operator, STATE 7969),
    (sym_binary_operator, STATE 7017), (sym_unary_operator, STATE 7017),
    (sym_comparison_operator, STATE 7969), (sym_lambda, STATE 7969),
    (sym_assignment, STATE 12425), (sym_augmented_assignment, STATE 12425),
    (sym_pattern_list, STATE 8578), (sym_yield, STATE 12425), (sym_attribute, STATE 6836),
    (sym_subscript, STATE 6838), (sym_call, STATE 6845), (sym_mlir_type, STATE 7017),
    (sym_list, STATE 7017), (sym_set, STATE 7017), (sym_tuple, STATE 7017),
    (sym_dictionary, STATE 7017), (sym_struct_literal, STATE 7017),
    (sym_list_comprehension, STATE 7017), (sym_dictionary_comprehension, STATE 7017),
    (sym_set_comprehension, STATE 7017), (sym_generator_expression, STATE 7017),
    (sym_parenthesized_expression, STATE 7017), (sym_conditional_expression, STATE 7969),
    (sym_concatenated_string, STATE 7017), (sym_string, STATE 6751), (sym_await, STATE 7017),
    (aux_sym_module_repeat1, STATE 925), (aux_sym_decorated_definition_repeat1, STATE 3670),
    (sym_identifier, ACTIONS 9), (anon_sym_import, ACTIONS 11), (anon_sym_from, ACTIONS 13),
    (anon_sym_LPAREN, ACTIONS 15), (anon_sym_STAR, ACTIONS 17), (anon_sym_print, ACTIONS 19),
    (anon_sym_comptime, ACTIONS 99), (anon_sym_assert, ACTIONS 23),
    (anon_sym___comptime_assert, ACTIONS 25), (anon_sym_return, ACTIONS 27),
    (anon_sym_del, ACTIONS 29), (anon_sym_raise, ACTIONS 31), (anon_sym_pass, ACTIONS 33),
    (anon_sym_break, ACTIONS 35), (anon_sym_continue, ACTIONS 37),
    (anon_sym___extension, ACTIONS 101), (anon_sym___mlir_region, ACTIONS 103),
    (anon_sym_if, ACTIONS 105), (anon_sym_match, ACTIONS 107), (anon_sym_async, ACTIONS 109),
    (anon_sym_for, ACTIONS 111), (anon_sym_while, ACTIONS 113), (anon_sym_try, ACTIONS 115),
    (anon_sym_with, ACTIONS 117), (anon_sym_def, ACTIONS 119), (anon_sym_fn, ACTIONS 119),
    (anon_sym_LBRACK, ACTIONS 59), (anon_sym_LBRACE, ACTIONS 61), (anon_sym_global, ACTIONS 63),
    (anon_sym_nonlocal, ACTIONS 65), (anon_sym_exec, ACTIONS 67), (anon_sym_type, ACTIONS 69),
    (anon_sym_class, ACTIONS 121), (anon_sym_struct, ACTIONS 121), (anon_sym_mut, ACTIONS 73),
    (anon_sym_out, ACTIONS 73), (anon_sym_trait, ACTIONS 123), (anon_sym_AT, ACTIONS 77),
    (anon_sym_DASH, ACTIONS 79), (anon_sym_PLUS, ACTIONS 79), (anon_sym_ref, ACTIONS 81),
    (anon_sym_var, ACTIONS 81), (anon_sym_not, ACTIONS 83), (anon_sym_TILDE, ACTIONS 79),
    (anon_sym_lambda, ACTIONS 85), (anon_sym_yield, ACTIONS 87), (sym_ellipsis, ACTIONS 89),
    (anon_sym___mlir_type, ACTIONS 91), (sym_integer, ACTIONS 93), (sym_float, ACTIONS 89),
    (anon_sym_await, ACTIONS 95), (sym_true, ACTIONS 93), (sym_false, ACTIONS 93),
    (sym_none, ACTIONS 93), (sym_comment, ACTIONS 3), (sym_line_continuation, ACTIONS 3),
    (sym__dedent, ACTIONS 129), (sym_string_start, ACTIONS 97)]"

definition parse_table_113 :: "(nat \<times> nat) list" where "parse_table_113 = [
    (sym__statement, STATE 925), (sym__simple_statements, STATE 925),
    (sym_import_statement, STATE 11814), (sym_future_import_statement, STATE 11814),
    (sym_import_from_statement, STATE 11814), (sym_print_statement, STATE 11814),
    (sym_assert_statement, STATE 11814), (sym_comptime_assert_statement, STATE 11814),
    (sym_expression_statement, STATE 11814), (sym_tuple_expression, STATE 12425),
    (sym_named_expression, STATE 7969), (sym__named_expression_lhs, STATE 12752),
    (sym_return_statement, STATE 11814), (sym_delete_statement, STATE 11814),
    (sym_raise_statement, STATE 11814), (sym_pass_statement, STATE 11814),
    (sym_break_statement, STATE 11814), (sym_continue_statement, STATE 11814),
    (sym_extension_definition, STATE 925), (sym_mlir_region, STATE 925),
    (sym_comptime_statement, STATE 925), (sym_if_statement, STATE 925),
    (sym_match_statement, STATE 925), (sym_for_statement, STATE 925),
    (sym_while_statement, STATE 925), (sym_try_statement, STATE 925),
    (sym_with_statement, STATE 925), (sym_function_definition, STATE 925),
    (sym_global_statement, STATE 11814), (sym_nonlocal_statement, STATE 11814),
    (sym_exec_statement, STATE 11814), (sym_type_alias_statement, STATE 11814),
    (sym_parameterized_alias_statement, STATE 11814), (sym_class_definition, STATE 925),
    (sym_trait_definition, STATE 925), (sym_decorated_definition, STATE 925),
    (sym_decorator, STATE 3670), (sym_block, STATE 4685), (sym_pattern, STATE 8086),
    (sym_tuple_pattern, STATE 8101), (sym_list_pattern, STATE 8101),
    (sym_list_splat_pattern, STATE 6819), (sym_as_pattern, STATE 7969),
    (sym_expression, STATE 9883), (sym_primary_expression, STATE 7326),
    (sym_comptime_expression, STATE 7017), (sym_transfer_expression, STATE 7017),
    (sym_not_operator, STATE 7969), (sym_boolean_operator, STATE 7969),
    (sym_binary_operator, STATE 7017), (sym_unary_operator, STATE 7017),
    (sym_comparison_operator, STATE 7969), (sym_lambda, STATE 7969),
    (sym_assignment, STATE 12425), (sym_augmented_assignment, STATE 12425),
    (sym_pattern_list, STATE 8578), (sym_yield, STATE 12425), (sym_attribute, STATE 6836),
    (sym_subscript, STATE 6838), (sym_call, STATE 6845), (sym_mlir_type, STATE 7017),
    (sym_list, STATE 7017), (sym_set, STATE 7017), (sym_tuple, STATE 7017),
    (sym_dictionary, STATE 7017), (sym_struct_literal, STATE 7017),
    (sym_list_comprehension, STATE 7017), (sym_dictionary_comprehension, STATE 7017),
    (sym_set_comprehension, STATE 7017), (sym_generator_expression, STATE 7017),
    (sym_parenthesized_expression, STATE 7017), (sym_conditional_expression, STATE 7969),
    (sym_concatenated_string, STATE 7017), (sym_string, STATE 6751), (sym_await, STATE 7017),
    (aux_sym_module_repeat1, STATE 925), (aux_sym_decorated_definition_repeat1, STATE 3670),
    (sym_identifier, ACTIONS 9), (anon_sym_import, ACTIONS 11), (anon_sym_from, ACTIONS 13),
    (anon_sym_LPAREN, ACTIONS 15), (anon_sym_STAR, ACTIONS 17), (anon_sym_print, ACTIONS 19),
    (anon_sym_comptime, ACTIONS 99), (anon_sym_assert, ACTIONS 23),
    (anon_sym___comptime_assert, ACTIONS 25), (anon_sym_return, ACTIONS 27),
    (anon_sym_del, ACTIONS 29), (anon_sym_raise, ACTIONS 31), (anon_sym_pass, ACTIONS 33),
    (anon_sym_break, ACTIONS 35), (anon_sym_continue, ACTIONS 37),
    (anon_sym___extension, ACTIONS 101), (anon_sym___mlir_region, ACTIONS 103),
    (anon_sym_if, ACTIONS 105), (anon_sym_match, ACTIONS 107), (anon_sym_async, ACTIONS 109),
    (anon_sym_for, ACTIONS 111), (anon_sym_while, ACTIONS 113), (anon_sym_try, ACTIONS 115),
    (anon_sym_with, ACTIONS 117), (anon_sym_def, ACTIONS 119), (anon_sym_fn, ACTIONS 119),
    (anon_sym_LBRACK, ACTIONS 59), (anon_sym_LBRACE, ACTIONS 61), (anon_sym_global, ACTIONS 63),
    (anon_sym_nonlocal, ACTIONS 65), (anon_sym_exec, ACTIONS 67), (anon_sym_type, ACTIONS 69),
    (anon_sym_class, ACTIONS 121), (anon_sym_struct, ACTIONS 121), (anon_sym_mut, ACTIONS 73),
    (anon_sym_out, ACTIONS 73), (anon_sym_trait, ACTIONS 123), (anon_sym_AT, ACTIONS 77),
    (anon_sym_DASH, ACTIONS 79), (anon_sym_PLUS, ACTIONS 79), (anon_sym_ref, ACTIONS 81),
    (anon_sym_var, ACTIONS 81), (anon_sym_not, ACTIONS 83), (anon_sym_TILDE, ACTIONS 79),
    (anon_sym_lambda, ACTIONS 85), (anon_sym_yield, ACTIONS 87), (sym_ellipsis, ACTIONS 89),
    (anon_sym___mlir_type, ACTIONS 91), (sym_integer, ACTIONS 93), (sym_float, ACTIONS 89),
    (anon_sym_await, ACTIONS 95), (sym_true, ACTIONS 93), (sym_false, ACTIONS 93),
    (sym_none, ACTIONS 93), (sym_comment, ACTIONS 3), (sym_line_continuation, ACTIONS 3),
    (sym__dedent, ACTIONS 129), (sym_string_start, ACTIONS 97)]"

definition parse_table_114 :: "(nat \<times> nat) list" where "parse_table_114 = [
    (sym__statement, STATE 925), (sym__simple_statements, STATE 925),
    (sym_import_statement, STATE 11814), (sym_future_import_statement, STATE 11814),
    (sym_import_from_statement, STATE 11814), (sym_print_statement, STATE 11814),
    (sym_assert_statement, STATE 11814), (sym_comptime_assert_statement, STATE 11814),
    (sym_expression_statement, STATE 11814), (sym_tuple_expression, STATE 12425),
    (sym_named_expression, STATE 7969), (sym__named_expression_lhs, STATE 12752),
    (sym_return_statement, STATE 11814), (sym_delete_statement, STATE 11814),
    (sym_raise_statement, STATE 11814), (sym_pass_statement, STATE 11814),
    (sym_break_statement, STATE 11814), (sym_continue_statement, STATE 11814),
    (sym_extension_definition, STATE 925), (sym_mlir_region, STATE 925),
    (sym_comptime_statement, STATE 925), (sym_if_statement, STATE 925),
    (sym_match_statement, STATE 925), (sym_for_statement, STATE 925),
    (sym_while_statement, STATE 925), (sym_try_statement, STATE 925),
    (sym_with_statement, STATE 925), (sym_function_definition, STATE 925),
    (sym_global_statement, STATE 11814), (sym_nonlocal_statement, STATE 11814),
    (sym_exec_statement, STATE 11814), (sym_type_alias_statement, STATE 11814),
    (sym_parameterized_alias_statement, STATE 11814), (sym_class_definition, STATE 925),
    (sym_trait_definition, STATE 925), (sym_decorated_definition, STATE 925),
    (sym_decorator, STATE 3670), (sym_block, STATE 4689), (sym_pattern, STATE 8086),
    (sym_tuple_pattern, STATE 8101), (sym_list_pattern, STATE 8101),
    (sym_list_splat_pattern, STATE 6819), (sym_as_pattern, STATE 7969),
    (sym_expression, STATE 9883), (sym_primary_expression, STATE 7326),
    (sym_comptime_expression, STATE 7017), (sym_transfer_expression, STATE 7017),
    (sym_not_operator, STATE 7969), (sym_boolean_operator, STATE 7969),
    (sym_binary_operator, STATE 7017), (sym_unary_operator, STATE 7017),
    (sym_comparison_operator, STATE 7969), (sym_lambda, STATE 7969),
    (sym_assignment, STATE 12425), (sym_augmented_assignment, STATE 12425),
    (sym_pattern_list, STATE 8578), (sym_yield, STATE 12425), (sym_attribute, STATE 6836),
    (sym_subscript, STATE 6838), (sym_call, STATE 6845), (sym_mlir_type, STATE 7017),
    (sym_list, STATE 7017), (sym_set, STATE 7017), (sym_tuple, STATE 7017),
    (sym_dictionary, STATE 7017), (sym_struct_literal, STATE 7017),
    (sym_list_comprehension, STATE 7017), (sym_dictionary_comprehension, STATE 7017),
    (sym_set_comprehension, STATE 7017), (sym_generator_expression, STATE 7017),
    (sym_parenthesized_expression, STATE 7017), (sym_conditional_expression, STATE 7969),
    (sym_concatenated_string, STATE 7017), (sym_string, STATE 6751), (sym_await, STATE 7017),
    (aux_sym_module_repeat1, STATE 925), (aux_sym_decorated_definition_repeat1, STATE 3670),
    (sym_identifier, ACTIONS 9), (anon_sym_import, ACTIONS 11), (anon_sym_from, ACTIONS 13),
    (anon_sym_LPAREN, ACTIONS 15), (anon_sym_STAR, ACTIONS 17), (anon_sym_print, ACTIONS 19),
    (anon_sym_comptime, ACTIONS 99), (anon_sym_assert, ACTIONS 23),
    (anon_sym___comptime_assert, ACTIONS 25), (anon_sym_return, ACTIONS 27),
    (anon_sym_del, ACTIONS 29), (anon_sym_raise, ACTIONS 31), (anon_sym_pass, ACTIONS 33),
    (anon_sym_break, ACTIONS 35), (anon_sym_continue, ACTIONS 37),
    (anon_sym___extension, ACTIONS 101), (anon_sym___mlir_region, ACTIONS 103),
    (anon_sym_if, ACTIONS 105), (anon_sym_match, ACTIONS 107), (anon_sym_async, ACTIONS 109),
    (anon_sym_for, ACTIONS 111), (anon_sym_while, ACTIONS 113), (anon_sym_try, ACTIONS 115),
    (anon_sym_with, ACTIONS 117), (anon_sym_def, ACTIONS 119), (anon_sym_fn, ACTIONS 119),
    (anon_sym_LBRACK, ACTIONS 59), (anon_sym_LBRACE, ACTIONS 61), (anon_sym_global, ACTIONS 63),
    (anon_sym_nonlocal, ACTIONS 65), (anon_sym_exec, ACTIONS 67), (anon_sym_type, ACTIONS 69),
    (anon_sym_class, ACTIONS 121), (anon_sym_struct, ACTIONS 121), (anon_sym_mut, ACTIONS 73),
    (anon_sym_out, ACTIONS 73), (anon_sym_trait, ACTIONS 123), (anon_sym_AT, ACTIONS 77),
    (anon_sym_DASH, ACTIONS 79), (anon_sym_PLUS, ACTIONS 79), (anon_sym_ref, ACTIONS 81),
    (anon_sym_var, ACTIONS 81), (anon_sym_not, ACTIONS 83), (anon_sym_TILDE, ACTIONS 79),
    (anon_sym_lambda, ACTIONS 85), (anon_sym_yield, ACTIONS 87), (sym_ellipsis, ACTIONS 89),
    (anon_sym___mlir_type, ACTIONS 91), (sym_integer, ACTIONS 93), (sym_float, ACTIONS 89),
    (anon_sym_await, ACTIONS 95), (sym_true, ACTIONS 93), (sym_false, ACTIONS 93),
    (sym_none, ACTIONS 93), (sym_comment, ACTIONS 3), (sym_line_continuation, ACTIONS 3),
    (sym__dedent, ACTIONS 129), (sym_string_start, ACTIONS 97)]"

definition parse_table_115 :: "(nat \<times> nat) list" where "parse_table_115 = [
    (sym__statement, STATE 925), (sym__simple_statements, STATE 925),
    (sym_import_statement, STATE 11814), (sym_future_import_statement, STATE 11814),
    (sym_import_from_statement, STATE 11814), (sym_print_statement, STATE 11814),
    (sym_assert_statement, STATE 11814), (sym_comptime_assert_statement, STATE 11814),
    (sym_expression_statement, STATE 11814), (sym_tuple_expression, STATE 12425),
    (sym_named_expression, STATE 7969), (sym__named_expression_lhs, STATE 12752),
    (sym_return_statement, STATE 11814), (sym_delete_statement, STATE 11814),
    (sym_raise_statement, STATE 11814), (sym_pass_statement, STATE 11814),
    (sym_break_statement, STATE 11814), (sym_continue_statement, STATE 11814),
    (sym_extension_definition, STATE 925), (sym_mlir_region, STATE 925),
    (sym_comptime_statement, STATE 925), (sym_if_statement, STATE 925),
    (sym_match_statement, STATE 925), (sym_for_statement, STATE 925),
    (sym_while_statement, STATE 925), (sym_try_statement, STATE 925),
    (sym_with_statement, STATE 925), (sym_function_definition, STATE 925),
    (sym_global_statement, STATE 11814), (sym_nonlocal_statement, STATE 11814),
    (sym_exec_statement, STATE 11814), (sym_type_alias_statement, STATE 11814),
    (sym_parameterized_alias_statement, STATE 11814), (sym_class_definition, STATE 925),
    (sym_trait_definition, STATE 925), (sym_decorated_definition, STATE 925),
    (sym_decorator, STATE 3670), (sym_block, STATE 4690), (sym_pattern, STATE 8086),
    (sym_tuple_pattern, STATE 8101), (sym_list_pattern, STATE 8101),
    (sym_list_splat_pattern, STATE 6819), (sym_as_pattern, STATE 7969),
    (sym_expression, STATE 9883), (sym_primary_expression, STATE 7326),
    (sym_comptime_expression, STATE 7017), (sym_transfer_expression, STATE 7017),
    (sym_not_operator, STATE 7969), (sym_boolean_operator, STATE 7969),
    (sym_binary_operator, STATE 7017), (sym_unary_operator, STATE 7017),
    (sym_comparison_operator, STATE 7969), (sym_lambda, STATE 7969),
    (sym_assignment, STATE 12425), (sym_augmented_assignment, STATE 12425),
    (sym_pattern_list, STATE 8578), (sym_yield, STATE 12425), (sym_attribute, STATE 6836),
    (sym_subscript, STATE 6838), (sym_call, STATE 6845), (sym_mlir_type, STATE 7017),
    (sym_list, STATE 7017), (sym_set, STATE 7017), (sym_tuple, STATE 7017),
    (sym_dictionary, STATE 7017), (sym_struct_literal, STATE 7017),
    (sym_list_comprehension, STATE 7017), (sym_dictionary_comprehension, STATE 7017),
    (sym_set_comprehension, STATE 7017), (sym_generator_expression, STATE 7017),
    (sym_parenthesized_expression, STATE 7017), (sym_conditional_expression, STATE 7969),
    (sym_concatenated_string, STATE 7017), (sym_string, STATE 6751), (sym_await, STATE 7017),
    (aux_sym_module_repeat1, STATE 925), (aux_sym_decorated_definition_repeat1, STATE 3670),
    (sym_identifier, ACTIONS 9), (anon_sym_import, ACTIONS 11), (anon_sym_from, ACTIONS 13),
    (anon_sym_LPAREN, ACTIONS 15), (anon_sym_STAR, ACTIONS 17), (anon_sym_print, ACTIONS 19),
    (anon_sym_comptime, ACTIONS 99), (anon_sym_assert, ACTIONS 23),
    (anon_sym___comptime_assert, ACTIONS 25), (anon_sym_return, ACTIONS 27),
    (anon_sym_del, ACTIONS 29), (anon_sym_raise, ACTIONS 31), (anon_sym_pass, ACTIONS 33),
    (anon_sym_break, ACTIONS 35), (anon_sym_continue, ACTIONS 37),
    (anon_sym___extension, ACTIONS 101), (anon_sym___mlir_region, ACTIONS 103),
    (anon_sym_if, ACTIONS 105), (anon_sym_match, ACTIONS 107), (anon_sym_async, ACTIONS 109),
    (anon_sym_for, ACTIONS 111), (anon_sym_while, ACTIONS 113), (anon_sym_try, ACTIONS 115),
    (anon_sym_with, ACTIONS 117), (anon_sym_def, ACTIONS 119), (anon_sym_fn, ACTIONS 119),
    (anon_sym_LBRACK, ACTIONS 59), (anon_sym_LBRACE, ACTIONS 61), (anon_sym_global, ACTIONS 63),
    (anon_sym_nonlocal, ACTIONS 65), (anon_sym_exec, ACTIONS 67), (anon_sym_type, ACTIONS 69),
    (anon_sym_class, ACTIONS 121), (anon_sym_struct, ACTIONS 121), (anon_sym_mut, ACTIONS 73),
    (anon_sym_out, ACTIONS 73), (anon_sym_trait, ACTIONS 123), (anon_sym_AT, ACTIONS 77),
    (anon_sym_DASH, ACTIONS 79), (anon_sym_PLUS, ACTIONS 79), (anon_sym_ref, ACTIONS 81),
    (anon_sym_var, ACTIONS 81), (anon_sym_not, ACTIONS 83), (anon_sym_TILDE, ACTIONS 79),
    (anon_sym_lambda, ACTIONS 85), (anon_sym_yield, ACTIONS 87), (sym_ellipsis, ACTIONS 89),
    (anon_sym___mlir_type, ACTIONS 91), (sym_integer, ACTIONS 93), (sym_float, ACTIONS 89),
    (anon_sym_await, ACTIONS 95), (sym_true, ACTIONS 93), (sym_false, ACTIONS 93),
    (sym_none, ACTIONS 93), (sym_comment, ACTIONS 3), (sym_line_continuation, ACTIONS 3),
    (sym__dedent, ACTIONS 129), (sym_string_start, ACTIONS 97)]"

definition parse_table_116 :: "(nat \<times> nat) list" where "parse_table_116 = [
    (sym__statement, STATE 925), (sym__simple_statements, STATE 925),
    (sym_import_statement, STATE 11814), (sym_future_import_statement, STATE 11814),
    (sym_import_from_statement, STATE 11814), (sym_print_statement, STATE 11814),
    (sym_assert_statement, STATE 11814), (sym_comptime_assert_statement, STATE 11814),
    (sym_expression_statement, STATE 11814), (sym_tuple_expression, STATE 12425),
    (sym_named_expression, STATE 7969), (sym__named_expression_lhs, STATE 12752),
    (sym_return_statement, STATE 11814), (sym_delete_statement, STATE 11814),
    (sym_raise_statement, STATE 11814), (sym_pass_statement, STATE 11814),
    (sym_break_statement, STATE 11814), (sym_continue_statement, STATE 11814),
    (sym_extension_definition, STATE 925), (sym_mlir_region, STATE 925),
    (sym_comptime_statement, STATE 925), (sym_if_statement, STATE 925),
    (sym_match_statement, STATE 925), (sym_for_statement, STATE 925),
    (sym_while_statement, STATE 925), (sym_try_statement, STATE 925),
    (sym_with_statement, STATE 925), (sym_function_definition, STATE 925),
    (sym_global_statement, STATE 11814), (sym_nonlocal_statement, STATE 11814),
    (sym_exec_statement, STATE 11814), (sym_type_alias_statement, STATE 11814),
    (sym_parameterized_alias_statement, STATE 11814), (sym_class_definition, STATE 925),
    (sym_trait_definition, STATE 925), (sym_decorated_definition, STATE 925),
    (sym_decorator, STATE 3670), (sym_block, STATE 4698), (sym_pattern, STATE 8086),
    (sym_tuple_pattern, STATE 8101), (sym_list_pattern, STATE 8101),
    (sym_list_splat_pattern, STATE 6819), (sym_as_pattern, STATE 7969),
    (sym_expression, STATE 9883), (sym_primary_expression, STATE 7326),
    (sym_comptime_expression, STATE 7017), (sym_transfer_expression, STATE 7017),
    (sym_not_operator, STATE 7969), (sym_boolean_operator, STATE 7969),
    (sym_binary_operator, STATE 7017), (sym_unary_operator, STATE 7017),
    (sym_comparison_operator, STATE 7969), (sym_lambda, STATE 7969),
    (sym_assignment, STATE 12425), (sym_augmented_assignment, STATE 12425),
    (sym_pattern_list, STATE 8578), (sym_yield, STATE 12425), (sym_attribute, STATE 6836),
    (sym_subscript, STATE 6838), (sym_call, STATE 6845), (sym_mlir_type, STATE 7017),
    (sym_list, STATE 7017), (sym_set, STATE 7017), (sym_tuple, STATE 7017),
    (sym_dictionary, STATE 7017), (sym_struct_literal, STATE 7017),
    (sym_list_comprehension, STATE 7017), (sym_dictionary_comprehension, STATE 7017),
    (sym_set_comprehension, STATE 7017), (sym_generator_expression, STATE 7017),
    (sym_parenthesized_expression, STATE 7017), (sym_conditional_expression, STATE 7969),
    (sym_concatenated_string, STATE 7017), (sym_string, STATE 6751), (sym_await, STATE 7017),
    (aux_sym_module_repeat1, STATE 925), (aux_sym_decorated_definition_repeat1, STATE 3670),
    (sym_identifier, ACTIONS 9), (anon_sym_import, ACTIONS 11), (anon_sym_from, ACTIONS 13),
    (anon_sym_LPAREN, ACTIONS 15), (anon_sym_STAR, ACTIONS 17), (anon_sym_print, ACTIONS 19),
    (anon_sym_comptime, ACTIONS 99), (anon_sym_assert, ACTIONS 23),
    (anon_sym___comptime_assert, ACTIONS 25), (anon_sym_return, ACTIONS 27),
    (anon_sym_del, ACTIONS 29), (anon_sym_raise, ACTIONS 31), (anon_sym_pass, ACTIONS 33),
    (anon_sym_break, ACTIONS 35), (anon_sym_continue, ACTIONS 37),
    (anon_sym___extension, ACTIONS 101), (anon_sym___mlir_region, ACTIONS 103),
    (anon_sym_if, ACTIONS 105), (anon_sym_match, ACTIONS 107), (anon_sym_async, ACTIONS 109),
    (anon_sym_for, ACTIONS 111), (anon_sym_while, ACTIONS 113), (anon_sym_try, ACTIONS 115),
    (anon_sym_with, ACTIONS 117), (anon_sym_def, ACTIONS 119), (anon_sym_fn, ACTIONS 119),
    (anon_sym_LBRACK, ACTIONS 59), (anon_sym_LBRACE, ACTIONS 61), (anon_sym_global, ACTIONS 63),
    (anon_sym_nonlocal, ACTIONS 65), (anon_sym_exec, ACTIONS 67), (anon_sym_type, ACTIONS 69),
    (anon_sym_class, ACTIONS 121), (anon_sym_struct, ACTIONS 121), (anon_sym_mut, ACTIONS 73),
    (anon_sym_out, ACTIONS 73), (anon_sym_trait, ACTIONS 123), (anon_sym_AT, ACTIONS 77),
    (anon_sym_DASH, ACTIONS 79), (anon_sym_PLUS, ACTIONS 79), (anon_sym_ref, ACTIONS 81),
    (anon_sym_var, ACTIONS 81), (anon_sym_not, ACTIONS 83), (anon_sym_TILDE, ACTIONS 79),
    (anon_sym_lambda, ACTIONS 85), (anon_sym_yield, ACTIONS 87), (sym_ellipsis, ACTIONS 89),
    (anon_sym___mlir_type, ACTIONS 91), (sym_integer, ACTIONS 93), (sym_float, ACTIONS 89),
    (anon_sym_await, ACTIONS 95), (sym_true, ACTIONS 93), (sym_false, ACTIONS 93),
    (sym_none, ACTIONS 93), (sym_comment, ACTIONS 3), (sym_line_continuation, ACTIONS 3),
    (sym__dedent, ACTIONS 129), (sym_string_start, ACTIONS 97)]"

definition parse_table_117 :: "(nat \<times> nat) list" where "parse_table_117 = [
    (sym__statement, STATE 925), (sym__simple_statements, STATE 925),
    (sym_import_statement, STATE 11814), (sym_future_import_statement, STATE 11814),
    (sym_import_from_statement, STATE 11814), (sym_print_statement, STATE 11814),
    (sym_assert_statement, STATE 11814), (sym_comptime_assert_statement, STATE 11814),
    (sym_expression_statement, STATE 11814), (sym_tuple_expression, STATE 12425),
    (sym_named_expression, STATE 7969), (sym__named_expression_lhs, STATE 12752),
    (sym_return_statement, STATE 11814), (sym_delete_statement, STATE 11814),
    (sym_raise_statement, STATE 11814), (sym_pass_statement, STATE 11814),
    (sym_break_statement, STATE 11814), (sym_continue_statement, STATE 11814),
    (sym_extension_definition, STATE 925), (sym_mlir_region, STATE 925),
    (sym_comptime_statement, STATE 925), (sym_if_statement, STATE 925),
    (sym_match_statement, STATE 925), (sym_for_statement, STATE 925),
    (sym_while_statement, STATE 925), (sym_try_statement, STATE 925),
    (sym_with_statement, STATE 925), (sym_function_definition, STATE 925),
    (sym_global_statement, STATE 11814), (sym_nonlocal_statement, STATE 11814),
    (sym_exec_statement, STATE 11814), (sym_type_alias_statement, STATE 11814),
    (sym_parameterized_alias_statement, STATE 11814), (sym_class_definition, STATE 925),
    (sym_trait_definition, STATE 925), (sym_decorated_definition, STATE 925),
    (sym_decorator, STATE 3670), (sym_block, STATE 4705), (sym_pattern, STATE 8086),
    (sym_tuple_pattern, STATE 8101), (sym_list_pattern, STATE 8101),
    (sym_list_splat_pattern, STATE 6819), (sym_as_pattern, STATE 7969),
    (sym_expression, STATE 9883), (sym_primary_expression, STATE 7326),
    (sym_comptime_expression, STATE 7017), (sym_transfer_expression, STATE 7017),
    (sym_not_operator, STATE 7969), (sym_boolean_operator, STATE 7969),
    (sym_binary_operator, STATE 7017), (sym_unary_operator, STATE 7017),
    (sym_comparison_operator, STATE 7969), (sym_lambda, STATE 7969),
    (sym_assignment, STATE 12425), (sym_augmented_assignment, STATE 12425),
    (sym_pattern_list, STATE 8578), (sym_yield, STATE 12425), (sym_attribute, STATE 6836),
    (sym_subscript, STATE 6838), (sym_call, STATE 6845), (sym_mlir_type, STATE 7017),
    (sym_list, STATE 7017), (sym_set, STATE 7017), (sym_tuple, STATE 7017),
    (sym_dictionary, STATE 7017), (sym_struct_literal, STATE 7017),
    (sym_list_comprehension, STATE 7017), (sym_dictionary_comprehension, STATE 7017),
    (sym_set_comprehension, STATE 7017), (sym_generator_expression, STATE 7017),
    (sym_parenthesized_expression, STATE 7017), (sym_conditional_expression, STATE 7969),
    (sym_concatenated_string, STATE 7017), (sym_string, STATE 6751), (sym_await, STATE 7017),
    (aux_sym_module_repeat1, STATE 925), (aux_sym_decorated_definition_repeat1, STATE 3670),
    (sym_identifier, ACTIONS 9), (anon_sym_import, ACTIONS 11), (anon_sym_from, ACTIONS 13),
    (anon_sym_LPAREN, ACTIONS 15), (anon_sym_STAR, ACTIONS 17), (anon_sym_print, ACTIONS 19),
    (anon_sym_comptime, ACTIONS 99), (anon_sym_assert, ACTIONS 23),
    (anon_sym___comptime_assert, ACTIONS 25), (anon_sym_return, ACTIONS 27),
    (anon_sym_del, ACTIONS 29), (anon_sym_raise, ACTIONS 31), (anon_sym_pass, ACTIONS 33),
    (anon_sym_break, ACTIONS 35), (anon_sym_continue, ACTIONS 37),
    (anon_sym___extension, ACTIONS 101), (anon_sym___mlir_region, ACTIONS 103),
    (anon_sym_if, ACTIONS 105), (anon_sym_match, ACTIONS 107), (anon_sym_async, ACTIONS 109),
    (anon_sym_for, ACTIONS 111), (anon_sym_while, ACTIONS 113), (anon_sym_try, ACTIONS 115),
    (anon_sym_with, ACTIONS 117), (anon_sym_def, ACTIONS 119), (anon_sym_fn, ACTIONS 119),
    (anon_sym_LBRACK, ACTIONS 59), (anon_sym_LBRACE, ACTIONS 61), (anon_sym_global, ACTIONS 63),
    (anon_sym_nonlocal, ACTIONS 65), (anon_sym_exec, ACTIONS 67), (anon_sym_type, ACTIONS 69),
    (anon_sym_class, ACTIONS 121), (anon_sym_struct, ACTIONS 121), (anon_sym_mut, ACTIONS 73),
    (anon_sym_out, ACTIONS 73), (anon_sym_trait, ACTIONS 123), (anon_sym_AT, ACTIONS 77),
    (anon_sym_DASH, ACTIONS 79), (anon_sym_PLUS, ACTIONS 79), (anon_sym_ref, ACTIONS 81),
    (anon_sym_var, ACTIONS 81), (anon_sym_not, ACTIONS 83), (anon_sym_TILDE, ACTIONS 79),
    (anon_sym_lambda, ACTIONS 85), (anon_sym_yield, ACTIONS 87), (sym_ellipsis, ACTIONS 89),
    (anon_sym___mlir_type, ACTIONS 91), (sym_integer, ACTIONS 93), (sym_float, ACTIONS 89),
    (anon_sym_await, ACTIONS 95), (sym_true, ACTIONS 93), (sym_false, ACTIONS 93),
    (sym_none, ACTIONS 93), (sym_comment, ACTIONS 3), (sym_line_continuation, ACTIONS 3),
    (sym__dedent, ACTIONS 129), (sym_string_start, ACTIONS 97)]"

definition parse_table_118 :: "(nat \<times> nat) list" where "parse_table_118 = [
    (sym__statement, STATE 925), (sym__simple_statements, STATE 925),
    (sym_import_statement, STATE 11814), (sym_future_import_statement, STATE 11814),
    (sym_import_from_statement, STATE 11814), (sym_print_statement, STATE 11814),
    (sym_assert_statement, STATE 11814), (sym_comptime_assert_statement, STATE 11814),
    (sym_expression_statement, STATE 11814), (sym_tuple_expression, STATE 12425),
    (sym_named_expression, STATE 7969), (sym__named_expression_lhs, STATE 12752),
    (sym_return_statement, STATE 11814), (sym_delete_statement, STATE 11814),
    (sym_raise_statement, STATE 11814), (sym_pass_statement, STATE 11814),
    (sym_break_statement, STATE 11814), (sym_continue_statement, STATE 11814),
    (sym_extension_definition, STATE 925), (sym_mlir_region, STATE 925),
    (sym_comptime_statement, STATE 925), (sym_if_statement, STATE 925),
    (sym_match_statement, STATE 925), (sym_for_statement, STATE 925),
    (sym_while_statement, STATE 925), (sym_try_statement, STATE 925),
    (sym_with_statement, STATE 925), (sym_function_definition, STATE 925),
    (sym_global_statement, STATE 11814), (sym_nonlocal_statement, STATE 11814),
    (sym_exec_statement, STATE 11814), (sym_type_alias_statement, STATE 11814),
    (sym_parameterized_alias_statement, STATE 11814), (sym_class_definition, STATE 925),
    (sym_trait_definition, STATE 925), (sym_decorated_definition, STATE 925),
    (sym_decorator, STATE 3670), (sym_block, STATE 4712), (sym_pattern, STATE 8086),
    (sym_tuple_pattern, STATE 8101), (sym_list_pattern, STATE 8101),
    (sym_list_splat_pattern, STATE 6819), (sym_as_pattern, STATE 7969),
    (sym_expression, STATE 9883), (sym_primary_expression, STATE 7326),
    (sym_comptime_expression, STATE 7017), (sym_transfer_expression, STATE 7017),
    (sym_not_operator, STATE 7969), (sym_boolean_operator, STATE 7969),
    (sym_binary_operator, STATE 7017), (sym_unary_operator, STATE 7017),
    (sym_comparison_operator, STATE 7969), (sym_lambda, STATE 7969),
    (sym_assignment, STATE 12425), (sym_augmented_assignment, STATE 12425),
    (sym_pattern_list, STATE 8578), (sym_yield, STATE 12425), (sym_attribute, STATE 6836),
    (sym_subscript, STATE 6838), (sym_call, STATE 6845), (sym_mlir_type, STATE 7017),
    (sym_list, STATE 7017), (sym_set, STATE 7017), (sym_tuple, STATE 7017),
    (sym_dictionary, STATE 7017), (sym_struct_literal, STATE 7017),
    (sym_list_comprehension, STATE 7017), (sym_dictionary_comprehension, STATE 7017),
    (sym_set_comprehension, STATE 7017), (sym_generator_expression, STATE 7017),
    (sym_parenthesized_expression, STATE 7017), (sym_conditional_expression, STATE 7969),
    (sym_concatenated_string, STATE 7017), (sym_string, STATE 6751), (sym_await, STATE 7017),
    (aux_sym_module_repeat1, STATE 925), (aux_sym_decorated_definition_repeat1, STATE 3670),
    (sym_identifier, ACTIONS 9), (anon_sym_import, ACTIONS 11), (anon_sym_from, ACTIONS 13),
    (anon_sym_LPAREN, ACTIONS 15), (anon_sym_STAR, ACTIONS 17), (anon_sym_print, ACTIONS 19),
    (anon_sym_comptime, ACTIONS 99), (anon_sym_assert, ACTIONS 23),
    (anon_sym___comptime_assert, ACTIONS 25), (anon_sym_return, ACTIONS 27),
    (anon_sym_del, ACTIONS 29), (anon_sym_raise, ACTIONS 31), (anon_sym_pass, ACTIONS 33),
    (anon_sym_break, ACTIONS 35), (anon_sym_continue, ACTIONS 37),
    (anon_sym___extension, ACTIONS 101), (anon_sym___mlir_region, ACTIONS 103),
    (anon_sym_if, ACTIONS 105), (anon_sym_match, ACTIONS 107), (anon_sym_async, ACTIONS 109),
    (anon_sym_for, ACTIONS 111), (anon_sym_while, ACTIONS 113), (anon_sym_try, ACTIONS 115),
    (anon_sym_with, ACTIONS 117), (anon_sym_def, ACTIONS 119), (anon_sym_fn, ACTIONS 119),
    (anon_sym_LBRACK, ACTIONS 59), (anon_sym_LBRACE, ACTIONS 61), (anon_sym_global, ACTIONS 63),
    (anon_sym_nonlocal, ACTIONS 65), (anon_sym_exec, ACTIONS 67), (anon_sym_type, ACTIONS 69),
    (anon_sym_class, ACTIONS 121), (anon_sym_struct, ACTIONS 121), (anon_sym_mut, ACTIONS 73),
    (anon_sym_out, ACTIONS 73), (anon_sym_trait, ACTIONS 123), (anon_sym_AT, ACTIONS 77),
    (anon_sym_DASH, ACTIONS 79), (anon_sym_PLUS, ACTIONS 79), (anon_sym_ref, ACTIONS 81),
    (anon_sym_var, ACTIONS 81), (anon_sym_not, ACTIONS 83), (anon_sym_TILDE, ACTIONS 79),
    (anon_sym_lambda, ACTIONS 85), (anon_sym_yield, ACTIONS 87), (sym_ellipsis, ACTIONS 89),
    (anon_sym___mlir_type, ACTIONS 91), (sym_integer, ACTIONS 93), (sym_float, ACTIONS 89),
    (anon_sym_await, ACTIONS 95), (sym_true, ACTIONS 93), (sym_false, ACTIONS 93),
    (sym_none, ACTIONS 93), (sym_comment, ACTIONS 3), (sym_line_continuation, ACTIONS 3),
    (sym__dedent, ACTIONS 129), (sym_string_start, ACTIONS 97)]"

definition parse_table_119 :: "(nat \<times> nat) list" where "parse_table_119 = [
    (sym__statement, STATE 925), (sym__simple_statements, STATE 925),
    (sym_import_statement, STATE 11814), (sym_future_import_statement, STATE 11814),
    (sym_import_from_statement, STATE 11814), (sym_print_statement, STATE 11814),
    (sym_assert_statement, STATE 11814), (sym_comptime_assert_statement, STATE 11814),
    (sym_expression_statement, STATE 11814), (sym_tuple_expression, STATE 12425),
    (sym_named_expression, STATE 7969), (sym__named_expression_lhs, STATE 12752),
    (sym_return_statement, STATE 11814), (sym_delete_statement, STATE 11814),
    (sym_raise_statement, STATE 11814), (sym_pass_statement, STATE 11814),
    (sym_break_statement, STATE 11814), (sym_continue_statement, STATE 11814),
    (sym_extension_definition, STATE 925), (sym_mlir_region, STATE 925),
    (sym_comptime_statement, STATE 925), (sym_if_statement, STATE 925),
    (sym_match_statement, STATE 925), (sym_for_statement, STATE 925),
    (sym_while_statement, STATE 925), (sym_try_statement, STATE 925),
    (sym_with_statement, STATE 925), (sym_function_definition, STATE 925),
    (sym_global_statement, STATE 11814), (sym_nonlocal_statement, STATE 11814),
    (sym_exec_statement, STATE 11814), (sym_type_alias_statement, STATE 11814),
    (sym_parameterized_alias_statement, STATE 11814), (sym_class_definition, STATE 925),
    (sym_trait_definition, STATE 925), (sym_decorated_definition, STATE 925),
    (sym_decorator, STATE 3670), (sym_block, STATE 4717), (sym_pattern, STATE 8086),
    (sym_tuple_pattern, STATE 8101), (sym_list_pattern, STATE 8101),
    (sym_list_splat_pattern, STATE 6819), (sym_as_pattern, STATE 7969),
    (sym_expression, STATE 9883), (sym_primary_expression, STATE 7326),
    (sym_comptime_expression, STATE 7017), (sym_transfer_expression, STATE 7017),
    (sym_not_operator, STATE 7969), (sym_boolean_operator, STATE 7969),
    (sym_binary_operator, STATE 7017), (sym_unary_operator, STATE 7017),
    (sym_comparison_operator, STATE 7969), (sym_lambda, STATE 7969),
    (sym_assignment, STATE 12425), (sym_augmented_assignment, STATE 12425),
    (sym_pattern_list, STATE 8578), (sym_yield, STATE 12425), (sym_attribute, STATE 6836),
    (sym_subscript, STATE 6838), (sym_call, STATE 6845), (sym_mlir_type, STATE 7017),
    (sym_list, STATE 7017), (sym_set, STATE 7017), (sym_tuple, STATE 7017),
    (sym_dictionary, STATE 7017), (sym_struct_literal, STATE 7017),
    (sym_list_comprehension, STATE 7017), (sym_dictionary_comprehension, STATE 7017),
    (sym_set_comprehension, STATE 7017), (sym_generator_expression, STATE 7017),
    (sym_parenthesized_expression, STATE 7017), (sym_conditional_expression, STATE 7969),
    (sym_concatenated_string, STATE 7017), (sym_string, STATE 6751), (sym_await, STATE 7017),
    (aux_sym_module_repeat1, STATE 925), (aux_sym_decorated_definition_repeat1, STATE 3670),
    (sym_identifier, ACTIONS 9), (anon_sym_import, ACTIONS 11), (anon_sym_from, ACTIONS 13),
    (anon_sym_LPAREN, ACTIONS 15), (anon_sym_STAR, ACTIONS 17), (anon_sym_print, ACTIONS 19),
    (anon_sym_comptime, ACTIONS 99), (anon_sym_assert, ACTIONS 23),
    (anon_sym___comptime_assert, ACTIONS 25), (anon_sym_return, ACTIONS 27),
    (anon_sym_del, ACTIONS 29), (anon_sym_raise, ACTIONS 31), (anon_sym_pass, ACTIONS 33),
    (anon_sym_break, ACTIONS 35), (anon_sym_continue, ACTIONS 37),
    (anon_sym___extension, ACTIONS 101), (anon_sym___mlir_region, ACTIONS 103),
    (anon_sym_if, ACTIONS 105), (anon_sym_match, ACTIONS 107), (anon_sym_async, ACTIONS 109),
    (anon_sym_for, ACTIONS 111), (anon_sym_while, ACTIONS 113), (anon_sym_try, ACTIONS 115),
    (anon_sym_with, ACTIONS 117), (anon_sym_def, ACTIONS 119), (anon_sym_fn, ACTIONS 119),
    (anon_sym_LBRACK, ACTIONS 59), (anon_sym_LBRACE, ACTIONS 61), (anon_sym_global, ACTIONS 63),
    (anon_sym_nonlocal, ACTIONS 65), (anon_sym_exec, ACTIONS 67), (anon_sym_type, ACTIONS 69),
    (anon_sym_class, ACTIONS 121), (anon_sym_struct, ACTIONS 121), (anon_sym_mut, ACTIONS 73),
    (anon_sym_out, ACTIONS 73), (anon_sym_trait, ACTIONS 123), (anon_sym_AT, ACTIONS 77),
    (anon_sym_DASH, ACTIONS 79), (anon_sym_PLUS, ACTIONS 79), (anon_sym_ref, ACTIONS 81),
    (anon_sym_var, ACTIONS 81), (anon_sym_not, ACTIONS 83), (anon_sym_TILDE, ACTIONS 79),
    (anon_sym_lambda, ACTIONS 85), (anon_sym_yield, ACTIONS 87), (sym_ellipsis, ACTIONS 89),
    (anon_sym___mlir_type, ACTIONS 91), (sym_integer, ACTIONS 93), (sym_float, ACTIONS 89),
    (anon_sym_await, ACTIONS 95), (sym_true, ACTIONS 93), (sym_false, ACTIONS 93),
    (sym_none, ACTIONS 93), (sym_comment, ACTIONS 3), (sym_line_continuation, ACTIONS 3),
    (sym__dedent, ACTIONS 129), (sym_string_start, ACTIONS 97)]"

definition parse_table_120 :: "(nat \<times> nat) list" where "parse_table_120 = [
    (sym__statement, STATE 925), (sym__simple_statements, STATE 925),
    (sym_import_statement, STATE 11814), (sym_future_import_statement, STATE 11814),
    (sym_import_from_statement, STATE 11814), (sym_print_statement, STATE 11814),
    (sym_assert_statement, STATE 11814), (sym_comptime_assert_statement, STATE 11814),
    (sym_expression_statement, STATE 11814), (sym_tuple_expression, STATE 12425),
    (sym_named_expression, STATE 7969), (sym__named_expression_lhs, STATE 12752),
    (sym_return_statement, STATE 11814), (sym_delete_statement, STATE 11814),
    (sym_raise_statement, STATE 11814), (sym_pass_statement, STATE 11814),
    (sym_break_statement, STATE 11814), (sym_continue_statement, STATE 11814),
    (sym_extension_definition, STATE 925), (sym_mlir_region, STATE 925),
    (sym_comptime_statement, STATE 925), (sym_if_statement, STATE 925),
    (sym_match_statement, STATE 925), (sym_for_statement, STATE 925),
    (sym_while_statement, STATE 925), (sym_try_statement, STATE 925),
    (sym_with_statement, STATE 925), (sym_function_definition, STATE 925),
    (sym_global_statement, STATE 11814), (sym_nonlocal_statement, STATE 11814),
    (sym_exec_statement, STATE 11814), (sym_type_alias_statement, STATE 11814),
    (sym_parameterized_alias_statement, STATE 11814), (sym_class_definition, STATE 925),
    (sym_trait_definition, STATE 925), (sym_decorated_definition, STATE 925),
    (sym_decorator, STATE 3670), (sym_block, STATE 4729), (sym_pattern, STATE 8086),
    (sym_tuple_pattern, STATE 8101), (sym_list_pattern, STATE 8101),
    (sym_list_splat_pattern, STATE 6819), (sym_as_pattern, STATE 7969),
    (sym_expression, STATE 9883), (sym_primary_expression, STATE 7326),
    (sym_comptime_expression, STATE 7017), (sym_transfer_expression, STATE 7017),
    (sym_not_operator, STATE 7969), (sym_boolean_operator, STATE 7969),
    (sym_binary_operator, STATE 7017), (sym_unary_operator, STATE 7017),
    (sym_comparison_operator, STATE 7969), (sym_lambda, STATE 7969),
    (sym_assignment, STATE 12425), (sym_augmented_assignment, STATE 12425),
    (sym_pattern_list, STATE 8578), (sym_yield, STATE 12425), (sym_attribute, STATE 6836),
    (sym_subscript, STATE 6838), (sym_call, STATE 6845), (sym_mlir_type, STATE 7017),
    (sym_list, STATE 7017), (sym_set, STATE 7017), (sym_tuple, STATE 7017),
    (sym_dictionary, STATE 7017), (sym_struct_literal, STATE 7017),
    (sym_list_comprehension, STATE 7017), (sym_dictionary_comprehension, STATE 7017),
    (sym_set_comprehension, STATE 7017), (sym_generator_expression, STATE 7017),
    (sym_parenthesized_expression, STATE 7017), (sym_conditional_expression, STATE 7969),
    (sym_concatenated_string, STATE 7017), (sym_string, STATE 6751), (sym_await, STATE 7017),
    (aux_sym_module_repeat1, STATE 925), (aux_sym_decorated_definition_repeat1, STATE 3670),
    (sym_identifier, ACTIONS 9), (anon_sym_import, ACTIONS 11), (anon_sym_from, ACTIONS 13),
    (anon_sym_LPAREN, ACTIONS 15), (anon_sym_STAR, ACTIONS 17), (anon_sym_print, ACTIONS 19),
    (anon_sym_comptime, ACTIONS 99), (anon_sym_assert, ACTIONS 23),
    (anon_sym___comptime_assert, ACTIONS 25), (anon_sym_return, ACTIONS 27),
    (anon_sym_del, ACTIONS 29), (anon_sym_raise, ACTIONS 31), (anon_sym_pass, ACTIONS 33),
    (anon_sym_break, ACTIONS 35), (anon_sym_continue, ACTIONS 37),
    (anon_sym___extension, ACTIONS 101), (anon_sym___mlir_region, ACTIONS 103),
    (anon_sym_if, ACTIONS 105), (anon_sym_match, ACTIONS 107), (anon_sym_async, ACTIONS 109),
    (anon_sym_for, ACTIONS 111), (anon_sym_while, ACTIONS 113), (anon_sym_try, ACTIONS 115),
    (anon_sym_with, ACTIONS 117), (anon_sym_def, ACTIONS 119), (anon_sym_fn, ACTIONS 119),
    (anon_sym_LBRACK, ACTIONS 59), (anon_sym_LBRACE, ACTIONS 61), (anon_sym_global, ACTIONS 63),
    (anon_sym_nonlocal, ACTIONS 65), (anon_sym_exec, ACTIONS 67), (anon_sym_type, ACTIONS 69),
    (anon_sym_class, ACTIONS 121), (anon_sym_struct, ACTIONS 121), (anon_sym_mut, ACTIONS 73),
    (anon_sym_out, ACTIONS 73), (anon_sym_trait, ACTIONS 123), (anon_sym_AT, ACTIONS 77),
    (anon_sym_DASH, ACTIONS 79), (anon_sym_PLUS, ACTIONS 79), (anon_sym_ref, ACTIONS 81),
    (anon_sym_var, ACTIONS 81), (anon_sym_not, ACTIONS 83), (anon_sym_TILDE, ACTIONS 79),
    (anon_sym_lambda, ACTIONS 85), (anon_sym_yield, ACTIONS 87), (sym_ellipsis, ACTIONS 89),
    (anon_sym___mlir_type, ACTIONS 91), (sym_integer, ACTIONS 93), (sym_float, ACTIONS 89),
    (anon_sym_await, ACTIONS 95), (sym_true, ACTIONS 93), (sym_false, ACTIONS 93),
    (sym_none, ACTIONS 93), (sym_comment, ACTIONS 3), (sym_line_continuation, ACTIONS 3),
    (sym__dedent, ACTIONS 129), (sym_string_start, ACTIONS 97)]"

definition parse_table_121 :: "(nat \<times> nat) list" where "parse_table_121 = [
    (sym__statement, STATE 925), (sym__simple_statements, STATE 925),
    (sym_import_statement, STATE 11814), (sym_future_import_statement, STATE 11814),
    (sym_import_from_statement, STATE 11814), (sym_print_statement, STATE 11814),
    (sym_assert_statement, STATE 11814), (sym_comptime_assert_statement, STATE 11814),
    (sym_expression_statement, STATE 11814), (sym_tuple_expression, STATE 12425),
    (sym_named_expression, STATE 7969), (sym__named_expression_lhs, STATE 12752),
    (sym_return_statement, STATE 11814), (sym_delete_statement, STATE 11814),
    (sym_raise_statement, STATE 11814), (sym_pass_statement, STATE 11814),
    (sym_break_statement, STATE 11814), (sym_continue_statement, STATE 11814),
    (sym_extension_definition, STATE 925), (sym_mlir_region, STATE 925),
    (sym_comptime_statement, STATE 925), (sym_if_statement, STATE 925),
    (sym_match_statement, STATE 925), (sym_for_statement, STATE 925),
    (sym_while_statement, STATE 925), (sym_try_statement, STATE 925),
    (sym_with_statement, STATE 925), (sym_function_definition, STATE 925),
    (sym_global_statement, STATE 11814), (sym_nonlocal_statement, STATE 11814),
    (sym_exec_statement, STATE 11814), (sym_type_alias_statement, STATE 11814),
    (sym_parameterized_alias_statement, STATE 11814), (sym_class_definition, STATE 925),
    (sym_trait_definition, STATE 925), (sym_decorated_definition, STATE 925),
    (sym_decorator, STATE 3670), (sym_block, STATE 4747), (sym_pattern, STATE 8086),
    (sym_tuple_pattern, STATE 8101), (sym_list_pattern, STATE 8101),
    (sym_list_splat_pattern, STATE 6819), (sym_as_pattern, STATE 7969),
    (sym_expression, STATE 9883), (sym_primary_expression, STATE 7326),
    (sym_comptime_expression, STATE 7017), (sym_transfer_expression, STATE 7017),
    (sym_not_operator, STATE 7969), (sym_boolean_operator, STATE 7969),
    (sym_binary_operator, STATE 7017), (sym_unary_operator, STATE 7017),
    (sym_comparison_operator, STATE 7969), (sym_lambda, STATE 7969),
    (sym_assignment, STATE 12425), (sym_augmented_assignment, STATE 12425),
    (sym_pattern_list, STATE 8578), (sym_yield, STATE 12425), (sym_attribute, STATE 6836),
    (sym_subscript, STATE 6838), (sym_call, STATE 6845), (sym_mlir_type, STATE 7017),
    (sym_list, STATE 7017), (sym_set, STATE 7017), (sym_tuple, STATE 7017),
    (sym_dictionary, STATE 7017), (sym_struct_literal, STATE 7017),
    (sym_list_comprehension, STATE 7017), (sym_dictionary_comprehension, STATE 7017),
    (sym_set_comprehension, STATE 7017), (sym_generator_expression, STATE 7017),
    (sym_parenthesized_expression, STATE 7017), (sym_conditional_expression, STATE 7969),
    (sym_concatenated_string, STATE 7017), (sym_string, STATE 6751), (sym_await, STATE 7017),
    (aux_sym_module_repeat1, STATE 925), (aux_sym_decorated_definition_repeat1, STATE 3670),
    (sym_identifier, ACTIONS 9), (anon_sym_import, ACTIONS 11), (anon_sym_from, ACTIONS 13),
    (anon_sym_LPAREN, ACTIONS 15), (anon_sym_STAR, ACTIONS 17), (anon_sym_print, ACTIONS 19),
    (anon_sym_comptime, ACTIONS 99), (anon_sym_assert, ACTIONS 23),
    (anon_sym___comptime_assert, ACTIONS 25), (anon_sym_return, ACTIONS 27),
    (anon_sym_del, ACTIONS 29), (anon_sym_raise, ACTIONS 31), (anon_sym_pass, ACTIONS 33),
    (anon_sym_break, ACTIONS 35), (anon_sym_continue, ACTIONS 37),
    (anon_sym___extension, ACTIONS 101), (anon_sym___mlir_region, ACTIONS 103),
    (anon_sym_if, ACTIONS 105), (anon_sym_match, ACTIONS 107), (anon_sym_async, ACTIONS 109),
    (anon_sym_for, ACTIONS 111), (anon_sym_while, ACTIONS 113), (anon_sym_try, ACTIONS 115),
    (anon_sym_with, ACTIONS 117), (anon_sym_def, ACTIONS 119), (anon_sym_fn, ACTIONS 119),
    (anon_sym_LBRACK, ACTIONS 59), (anon_sym_LBRACE, ACTIONS 61), (anon_sym_global, ACTIONS 63),
    (anon_sym_nonlocal, ACTIONS 65), (anon_sym_exec, ACTIONS 67), (anon_sym_type, ACTIONS 69),
    (anon_sym_class, ACTIONS 121), (anon_sym_struct, ACTIONS 121), (anon_sym_mut, ACTIONS 73),
    (anon_sym_out, ACTIONS 73), (anon_sym_trait, ACTIONS 123), (anon_sym_AT, ACTIONS 77),
    (anon_sym_DASH, ACTIONS 79), (anon_sym_PLUS, ACTIONS 79), (anon_sym_ref, ACTIONS 81),
    (anon_sym_var, ACTIONS 81), (anon_sym_not, ACTIONS 83), (anon_sym_TILDE, ACTIONS 79),
    (anon_sym_lambda, ACTIONS 85), (anon_sym_yield, ACTIONS 87), (sym_ellipsis, ACTIONS 89),
    (anon_sym___mlir_type, ACTIONS 91), (sym_integer, ACTIONS 93), (sym_float, ACTIONS 89),
    (anon_sym_await, ACTIONS 95), (sym_true, ACTIONS 93), (sym_false, ACTIONS 93),
    (sym_none, ACTIONS 93), (sym_comment, ACTIONS 3), (sym_line_continuation, ACTIONS 3),
    (sym__dedent, ACTIONS 129), (sym_string_start, ACTIONS 97)]"

definition parse_table_122 :: "(nat \<times> nat) list" where "parse_table_122 = [
    (sym__statement, STATE 925), (sym__simple_statements, STATE 925),
    (sym_import_statement, STATE 11814), (sym_future_import_statement, STATE 11814),
    (sym_import_from_statement, STATE 11814), (sym_print_statement, STATE 11814),
    (sym_assert_statement, STATE 11814), (sym_comptime_assert_statement, STATE 11814),
    (sym_expression_statement, STATE 11814), (sym_tuple_expression, STATE 12425),
    (sym_named_expression, STATE 7969), (sym__named_expression_lhs, STATE 12752),
    (sym_return_statement, STATE 11814), (sym_delete_statement, STATE 11814),
    (sym_raise_statement, STATE 11814), (sym_pass_statement, STATE 11814),
    (sym_break_statement, STATE 11814), (sym_continue_statement, STATE 11814),
    (sym_extension_definition, STATE 925), (sym_mlir_region, STATE 925),
    (sym_comptime_statement, STATE 925), (sym_if_statement, STATE 925),
    (sym_match_statement, STATE 925), (sym_for_statement, STATE 925),
    (sym_while_statement, STATE 925), (sym_try_statement, STATE 925),
    (sym_with_statement, STATE 925), (sym_function_definition, STATE 925),
    (sym_global_statement, STATE 11814), (sym_nonlocal_statement, STATE 11814),
    (sym_exec_statement, STATE 11814), (sym_type_alias_statement, STATE 11814),
    (sym_parameterized_alias_statement, STATE 11814), (sym_class_definition, STATE 925),
    (sym_trait_definition, STATE 925), (sym_decorated_definition, STATE 925),
    (sym_decorator, STATE 3670), (sym_block, STATE 4749), (sym_pattern, STATE 8086),
    (sym_tuple_pattern, STATE 8101), (sym_list_pattern, STATE 8101),
    (sym_list_splat_pattern, STATE 6819), (sym_as_pattern, STATE 7969),
    (sym_expression, STATE 9883), (sym_primary_expression, STATE 7326),
    (sym_comptime_expression, STATE 7017), (sym_transfer_expression, STATE 7017),
    (sym_not_operator, STATE 7969), (sym_boolean_operator, STATE 7969),
    (sym_binary_operator, STATE 7017), (sym_unary_operator, STATE 7017),
    (sym_comparison_operator, STATE 7969), (sym_lambda, STATE 7969),
    (sym_assignment, STATE 12425), (sym_augmented_assignment, STATE 12425),
    (sym_pattern_list, STATE 8578), (sym_yield, STATE 12425), (sym_attribute, STATE 6836),
    (sym_subscript, STATE 6838), (sym_call, STATE 6845), (sym_mlir_type, STATE 7017),
    (sym_list, STATE 7017), (sym_set, STATE 7017), (sym_tuple, STATE 7017),
    (sym_dictionary, STATE 7017), (sym_struct_literal, STATE 7017),
    (sym_list_comprehension, STATE 7017), (sym_dictionary_comprehension, STATE 7017),
    (sym_set_comprehension, STATE 7017), (sym_generator_expression, STATE 7017),
    (sym_parenthesized_expression, STATE 7017), (sym_conditional_expression, STATE 7969),
    (sym_concatenated_string, STATE 7017), (sym_string, STATE 6751), (sym_await, STATE 7017),
    (aux_sym_module_repeat1, STATE 925), (aux_sym_decorated_definition_repeat1, STATE 3670),
    (sym_identifier, ACTIONS 9), (anon_sym_import, ACTIONS 11), (anon_sym_from, ACTIONS 13),
    (anon_sym_LPAREN, ACTIONS 15), (anon_sym_STAR, ACTIONS 17), (anon_sym_print, ACTIONS 19),
    (anon_sym_comptime, ACTIONS 99), (anon_sym_assert, ACTIONS 23),
    (anon_sym___comptime_assert, ACTIONS 25), (anon_sym_return, ACTIONS 27),
    (anon_sym_del, ACTIONS 29), (anon_sym_raise, ACTIONS 31), (anon_sym_pass, ACTIONS 33),
    (anon_sym_break, ACTIONS 35), (anon_sym_continue, ACTIONS 37),
    (anon_sym___extension, ACTIONS 101), (anon_sym___mlir_region, ACTIONS 103),
    (anon_sym_if, ACTIONS 105), (anon_sym_match, ACTIONS 107), (anon_sym_async, ACTIONS 109),
    (anon_sym_for, ACTIONS 111), (anon_sym_while, ACTIONS 113), (anon_sym_try, ACTIONS 115),
    (anon_sym_with, ACTIONS 117), (anon_sym_def, ACTIONS 119), (anon_sym_fn, ACTIONS 119),
    (anon_sym_LBRACK, ACTIONS 59), (anon_sym_LBRACE, ACTIONS 61), (anon_sym_global, ACTIONS 63),
    (anon_sym_nonlocal, ACTIONS 65), (anon_sym_exec, ACTIONS 67), (anon_sym_type, ACTIONS 69),
    (anon_sym_class, ACTIONS 121), (anon_sym_struct, ACTIONS 121), (anon_sym_mut, ACTIONS 73),
    (anon_sym_out, ACTIONS 73), (anon_sym_trait, ACTIONS 123), (anon_sym_AT, ACTIONS 77),
    (anon_sym_DASH, ACTIONS 79), (anon_sym_PLUS, ACTIONS 79), (anon_sym_ref, ACTIONS 81),
    (anon_sym_var, ACTIONS 81), (anon_sym_not, ACTIONS 83), (anon_sym_TILDE, ACTIONS 79),
    (anon_sym_lambda, ACTIONS 85), (anon_sym_yield, ACTIONS 87), (sym_ellipsis, ACTIONS 89),
    (anon_sym___mlir_type, ACTIONS 91), (sym_integer, ACTIONS 93), (sym_float, ACTIONS 89),
    (anon_sym_await, ACTIONS 95), (sym_true, ACTIONS 93), (sym_false, ACTIONS 93),
    (sym_none, ACTIONS 93), (sym_comment, ACTIONS 3), (sym_line_continuation, ACTIONS 3),
    (sym__dedent, ACTIONS 129), (sym_string_start, ACTIONS 97)]"

definition parse_table_123 :: "(nat \<times> nat) list" where "parse_table_123 = [
    (sym__statement, STATE 925), (sym__simple_statements, STATE 925),
    (sym_import_statement, STATE 11814), (sym_future_import_statement, STATE 11814),
    (sym_import_from_statement, STATE 11814), (sym_print_statement, STATE 11814),
    (sym_assert_statement, STATE 11814), (sym_comptime_assert_statement, STATE 11814),
    (sym_expression_statement, STATE 11814), (sym_tuple_expression, STATE 12425),
    (sym_named_expression, STATE 7969), (sym__named_expression_lhs, STATE 12752),
    (sym_return_statement, STATE 11814), (sym_delete_statement, STATE 11814),
    (sym_raise_statement, STATE 11814), (sym_pass_statement, STATE 11814),
    (sym_break_statement, STATE 11814), (sym_continue_statement, STATE 11814),
    (sym_extension_definition, STATE 925), (sym_mlir_region, STATE 925),
    (sym_comptime_statement, STATE 925), (sym_if_statement, STATE 925),
    (sym_match_statement, STATE 925), (sym_for_statement, STATE 925),
    (sym_while_statement, STATE 925), (sym_try_statement, STATE 925),
    (sym_with_statement, STATE 925), (sym_function_definition, STATE 925),
    (sym_global_statement, STATE 11814), (sym_nonlocal_statement, STATE 11814),
    (sym_exec_statement, STATE 11814), (sym_type_alias_statement, STATE 11814),
    (sym_parameterized_alias_statement, STATE 11814), (sym_class_definition, STATE 925),
    (sym_trait_definition, STATE 925), (sym_decorated_definition, STATE 925),
    (sym_decorator, STATE 3670), (sym_block, STATE 4753), (sym_pattern, STATE 8086),
    (sym_tuple_pattern, STATE 8101), (sym_list_pattern, STATE 8101),
    (sym_list_splat_pattern, STATE 6819), (sym_as_pattern, STATE 7969),
    (sym_expression, STATE 9883), (sym_primary_expression, STATE 7326),
    (sym_comptime_expression, STATE 7017), (sym_transfer_expression, STATE 7017),
    (sym_not_operator, STATE 7969), (sym_boolean_operator, STATE 7969),
    (sym_binary_operator, STATE 7017), (sym_unary_operator, STATE 7017),
    (sym_comparison_operator, STATE 7969), (sym_lambda, STATE 7969),
    (sym_assignment, STATE 12425), (sym_augmented_assignment, STATE 12425),
    (sym_pattern_list, STATE 8578), (sym_yield, STATE 12425), (sym_attribute, STATE 6836),
    (sym_subscript, STATE 6838), (sym_call, STATE 6845), (sym_mlir_type, STATE 7017),
    (sym_list, STATE 7017), (sym_set, STATE 7017), (sym_tuple, STATE 7017),
    (sym_dictionary, STATE 7017), (sym_struct_literal, STATE 7017),
    (sym_list_comprehension, STATE 7017), (sym_dictionary_comprehension, STATE 7017),
    (sym_set_comprehension, STATE 7017), (sym_generator_expression, STATE 7017),
    (sym_parenthesized_expression, STATE 7017), (sym_conditional_expression, STATE 7969),
    (sym_concatenated_string, STATE 7017), (sym_string, STATE 6751), (sym_await, STATE 7017),
    (aux_sym_module_repeat1, STATE 925), (aux_sym_decorated_definition_repeat1, STATE 3670),
    (sym_identifier, ACTIONS 9), (anon_sym_import, ACTIONS 11), (anon_sym_from, ACTIONS 13),
    (anon_sym_LPAREN, ACTIONS 15), (anon_sym_STAR, ACTIONS 17), (anon_sym_print, ACTIONS 19),
    (anon_sym_comptime, ACTIONS 99), (anon_sym_assert, ACTIONS 23),
    (anon_sym___comptime_assert, ACTIONS 25), (anon_sym_return, ACTIONS 27),
    (anon_sym_del, ACTIONS 29), (anon_sym_raise, ACTIONS 31), (anon_sym_pass, ACTIONS 33),
    (anon_sym_break, ACTIONS 35), (anon_sym_continue, ACTIONS 37),
    (anon_sym___extension, ACTIONS 101), (anon_sym___mlir_region, ACTIONS 103),
    (anon_sym_if, ACTIONS 105), (anon_sym_match, ACTIONS 107), (anon_sym_async, ACTIONS 109),
    (anon_sym_for, ACTIONS 111), (anon_sym_while, ACTIONS 113), (anon_sym_try, ACTIONS 115),
    (anon_sym_with, ACTIONS 117), (anon_sym_def, ACTIONS 119), (anon_sym_fn, ACTIONS 119),
    (anon_sym_LBRACK, ACTIONS 59), (anon_sym_LBRACE, ACTIONS 61), (anon_sym_global, ACTIONS 63),
    (anon_sym_nonlocal, ACTIONS 65), (anon_sym_exec, ACTIONS 67), (anon_sym_type, ACTIONS 69),
    (anon_sym_class, ACTIONS 121), (anon_sym_struct, ACTIONS 121), (anon_sym_mut, ACTIONS 73),
    (anon_sym_out, ACTIONS 73), (anon_sym_trait, ACTIONS 123), (anon_sym_AT, ACTIONS 77),
    (anon_sym_DASH, ACTIONS 79), (anon_sym_PLUS, ACTIONS 79), (anon_sym_ref, ACTIONS 81),
    (anon_sym_var, ACTIONS 81), (anon_sym_not, ACTIONS 83), (anon_sym_TILDE, ACTIONS 79),
    (anon_sym_lambda, ACTIONS 85), (anon_sym_yield, ACTIONS 87), (sym_ellipsis, ACTIONS 89),
    (anon_sym___mlir_type, ACTIONS 91), (sym_integer, ACTIONS 93), (sym_float, ACTIONS 89),
    (anon_sym_await, ACTIONS 95), (sym_true, ACTIONS 93), (sym_false, ACTIONS 93),
    (sym_none, ACTIONS 93), (sym_comment, ACTIONS 3), (sym_line_continuation, ACTIONS 3),
    (sym__dedent, ACTIONS 129), (sym_string_start, ACTIONS 97)]"

definition parse_table_124 :: "(nat \<times> nat) list" where "parse_table_124 = [
    (sym__statement, STATE 925), (sym__simple_statements, STATE 925),
    (sym_import_statement, STATE 11814), (sym_future_import_statement, STATE 11814),
    (sym_import_from_statement, STATE 11814), (sym_print_statement, STATE 11814),
    (sym_assert_statement, STATE 11814), (sym_comptime_assert_statement, STATE 11814),
    (sym_expression_statement, STATE 11814), (sym_tuple_expression, STATE 12425),
    (sym_named_expression, STATE 7969), (sym__named_expression_lhs, STATE 12752),
    (sym_return_statement, STATE 11814), (sym_delete_statement, STATE 11814),
    (sym_raise_statement, STATE 11814), (sym_pass_statement, STATE 11814),
    (sym_break_statement, STATE 11814), (sym_continue_statement, STATE 11814),
    (sym_extension_definition, STATE 925), (sym_mlir_region, STATE 925),
    (sym_comptime_statement, STATE 925), (sym_if_statement, STATE 925),
    (sym_match_statement, STATE 925), (sym_for_statement, STATE 925),
    (sym_while_statement, STATE 925), (sym_try_statement, STATE 925),
    (sym_with_statement, STATE 925), (sym_function_definition, STATE 925),
    (sym_global_statement, STATE 11814), (sym_nonlocal_statement, STATE 11814),
    (sym_exec_statement, STATE 11814), (sym_type_alias_statement, STATE 11814),
    (sym_parameterized_alias_statement, STATE 11814), (sym_class_definition, STATE 925),
    (sym_trait_definition, STATE 925), (sym_decorated_definition, STATE 925),
    (sym_decorator, STATE 3670), (sym_block, STATE 4761), (sym_pattern, STATE 8086),
    (sym_tuple_pattern, STATE 8101), (sym_list_pattern, STATE 8101),
    (sym_list_splat_pattern, STATE 6819), (sym_as_pattern, STATE 7969),
    (sym_expression, STATE 9883), (sym_primary_expression, STATE 7326),
    (sym_comptime_expression, STATE 7017), (sym_transfer_expression, STATE 7017),
    (sym_not_operator, STATE 7969), (sym_boolean_operator, STATE 7969),
    (sym_binary_operator, STATE 7017), (sym_unary_operator, STATE 7017),
    (sym_comparison_operator, STATE 7969), (sym_lambda, STATE 7969),
    (sym_assignment, STATE 12425), (sym_augmented_assignment, STATE 12425),
    (sym_pattern_list, STATE 8578), (sym_yield, STATE 12425), (sym_attribute, STATE 6836),
    (sym_subscript, STATE 6838), (sym_call, STATE 6845), (sym_mlir_type, STATE 7017),
    (sym_list, STATE 7017), (sym_set, STATE 7017), (sym_tuple, STATE 7017),
    (sym_dictionary, STATE 7017), (sym_struct_literal, STATE 7017),
    (sym_list_comprehension, STATE 7017), (sym_dictionary_comprehension, STATE 7017),
    (sym_set_comprehension, STATE 7017), (sym_generator_expression, STATE 7017),
    (sym_parenthesized_expression, STATE 7017), (sym_conditional_expression, STATE 7969),
    (sym_concatenated_string, STATE 7017), (sym_string, STATE 6751), (sym_await, STATE 7017),
    (aux_sym_module_repeat1, STATE 925), (aux_sym_decorated_definition_repeat1, STATE 3670),
    (sym_identifier, ACTIONS 9), (anon_sym_import, ACTIONS 11), (anon_sym_from, ACTIONS 13),
    (anon_sym_LPAREN, ACTIONS 15), (anon_sym_STAR, ACTIONS 17), (anon_sym_print, ACTIONS 19),
    (anon_sym_comptime, ACTIONS 99), (anon_sym_assert, ACTIONS 23),
    (anon_sym___comptime_assert, ACTIONS 25), (anon_sym_return, ACTIONS 27),
    (anon_sym_del, ACTIONS 29), (anon_sym_raise, ACTIONS 31), (anon_sym_pass, ACTIONS 33),
    (anon_sym_break, ACTIONS 35), (anon_sym_continue, ACTIONS 37),
    (anon_sym___extension, ACTIONS 101), (anon_sym___mlir_region, ACTIONS 103),
    (anon_sym_if, ACTIONS 105), (anon_sym_match, ACTIONS 107), (anon_sym_async, ACTIONS 109),
    (anon_sym_for, ACTIONS 111), (anon_sym_while, ACTIONS 113), (anon_sym_try, ACTIONS 115),
    (anon_sym_with, ACTIONS 117), (anon_sym_def, ACTIONS 119), (anon_sym_fn, ACTIONS 119),
    (anon_sym_LBRACK, ACTIONS 59), (anon_sym_LBRACE, ACTIONS 61), (anon_sym_global, ACTIONS 63),
    (anon_sym_nonlocal, ACTIONS 65), (anon_sym_exec, ACTIONS 67), (anon_sym_type, ACTIONS 69),
    (anon_sym_class, ACTIONS 121), (anon_sym_struct, ACTIONS 121), (anon_sym_mut, ACTIONS 73),
    (anon_sym_out, ACTIONS 73), (anon_sym_trait, ACTIONS 123), (anon_sym_AT, ACTIONS 77),
    (anon_sym_DASH, ACTIONS 79), (anon_sym_PLUS, ACTIONS 79), (anon_sym_ref, ACTIONS 81),
    (anon_sym_var, ACTIONS 81), (anon_sym_not, ACTIONS 83), (anon_sym_TILDE, ACTIONS 79),
    (anon_sym_lambda, ACTIONS 85), (anon_sym_yield, ACTIONS 87), (sym_ellipsis, ACTIONS 89),
    (anon_sym___mlir_type, ACTIONS 91), (sym_integer, ACTIONS 93), (sym_float, ACTIONS 89),
    (anon_sym_await, ACTIONS 95), (sym_true, ACTIONS 93), (sym_false, ACTIONS 93),
    (sym_none, ACTIONS 93), (sym_comment, ACTIONS 3), (sym_line_continuation, ACTIONS 3),
    (sym__dedent, ACTIONS 129), (sym_string_start, ACTIONS 97)]"

definition parse_table_125 :: "(nat \<times> nat) list" where "parse_table_125 = [
    (sym__statement, STATE 925), (sym__simple_statements, STATE 925),
    (sym_import_statement, STATE 11814), (sym_future_import_statement, STATE 11814),
    (sym_import_from_statement, STATE 11814), (sym_print_statement, STATE 11814),
    (sym_assert_statement, STATE 11814), (sym_comptime_assert_statement, STATE 11814),
    (sym_expression_statement, STATE 11814), (sym_tuple_expression, STATE 12425),
    (sym_named_expression, STATE 7969), (sym__named_expression_lhs, STATE 12752),
    (sym_return_statement, STATE 11814), (sym_delete_statement, STATE 11814),
    (sym_raise_statement, STATE 11814), (sym_pass_statement, STATE 11814),
    (sym_break_statement, STATE 11814), (sym_continue_statement, STATE 11814),
    (sym_extension_definition, STATE 925), (sym_mlir_region, STATE 925),
    (sym_comptime_statement, STATE 925), (sym_if_statement, STATE 925),
    (sym_match_statement, STATE 925), (sym_for_statement, STATE 925),
    (sym_while_statement, STATE 925), (sym_try_statement, STATE 925),
    (sym_with_statement, STATE 925), (sym_function_definition, STATE 925),
    (sym_global_statement, STATE 11814), (sym_nonlocal_statement, STATE 11814),
    (sym_exec_statement, STATE 11814), (sym_type_alias_statement, STATE 11814),
    (sym_parameterized_alias_statement, STATE 11814), (sym_class_definition, STATE 925),
    (sym_trait_definition, STATE 925), (sym_decorated_definition, STATE 925),
    (sym_decorator, STATE 3670), (sym_block, STATE 4768), (sym_pattern, STATE 8086),
    (sym_tuple_pattern, STATE 8101), (sym_list_pattern, STATE 8101),
    (sym_list_splat_pattern, STATE 6819), (sym_as_pattern, STATE 7969),
    (sym_expression, STATE 9883), (sym_primary_expression, STATE 7326),
    (sym_comptime_expression, STATE 7017), (sym_transfer_expression, STATE 7017),
    (sym_not_operator, STATE 7969), (sym_boolean_operator, STATE 7969),
    (sym_binary_operator, STATE 7017), (sym_unary_operator, STATE 7017),
    (sym_comparison_operator, STATE 7969), (sym_lambda, STATE 7969),
    (sym_assignment, STATE 12425), (sym_augmented_assignment, STATE 12425),
    (sym_pattern_list, STATE 8578), (sym_yield, STATE 12425), (sym_attribute, STATE 6836),
    (sym_subscript, STATE 6838), (sym_call, STATE 6845), (sym_mlir_type, STATE 7017),
    (sym_list, STATE 7017), (sym_set, STATE 7017), (sym_tuple, STATE 7017),
    (sym_dictionary, STATE 7017), (sym_struct_literal, STATE 7017),
    (sym_list_comprehension, STATE 7017), (sym_dictionary_comprehension, STATE 7017),
    (sym_set_comprehension, STATE 7017), (sym_generator_expression, STATE 7017),
    (sym_parenthesized_expression, STATE 7017), (sym_conditional_expression, STATE 7969),
    (sym_concatenated_string, STATE 7017), (sym_string, STATE 6751), (sym_await, STATE 7017),
    (aux_sym_module_repeat1, STATE 925), (aux_sym_decorated_definition_repeat1, STATE 3670),
    (sym_identifier, ACTIONS 9), (anon_sym_import, ACTIONS 11), (anon_sym_from, ACTIONS 13),
    (anon_sym_LPAREN, ACTIONS 15), (anon_sym_STAR, ACTIONS 17), (anon_sym_print, ACTIONS 19),
    (anon_sym_comptime, ACTIONS 99), (anon_sym_assert, ACTIONS 23),
    (anon_sym___comptime_assert, ACTIONS 25), (anon_sym_return, ACTIONS 27),
    (anon_sym_del, ACTIONS 29), (anon_sym_raise, ACTIONS 31), (anon_sym_pass, ACTIONS 33),
    (anon_sym_break, ACTIONS 35), (anon_sym_continue, ACTIONS 37),
    (anon_sym___extension, ACTIONS 101), (anon_sym___mlir_region, ACTIONS 103),
    (anon_sym_if, ACTIONS 105), (anon_sym_match, ACTIONS 107), (anon_sym_async, ACTIONS 109),
    (anon_sym_for, ACTIONS 111), (anon_sym_while, ACTIONS 113), (anon_sym_try, ACTIONS 115),
    (anon_sym_with, ACTIONS 117), (anon_sym_def, ACTIONS 119), (anon_sym_fn, ACTIONS 119),
    (anon_sym_LBRACK, ACTIONS 59), (anon_sym_LBRACE, ACTIONS 61), (anon_sym_global, ACTIONS 63),
    (anon_sym_nonlocal, ACTIONS 65), (anon_sym_exec, ACTIONS 67), (anon_sym_type, ACTIONS 69),
    (anon_sym_class, ACTIONS 121), (anon_sym_struct, ACTIONS 121), (anon_sym_mut, ACTIONS 73),
    (anon_sym_out, ACTIONS 73), (anon_sym_trait, ACTIONS 123), (anon_sym_AT, ACTIONS 77),
    (anon_sym_DASH, ACTIONS 79), (anon_sym_PLUS, ACTIONS 79), (anon_sym_ref, ACTIONS 81),
    (anon_sym_var, ACTIONS 81), (anon_sym_not, ACTIONS 83), (anon_sym_TILDE, ACTIONS 79),
    (anon_sym_lambda, ACTIONS 85), (anon_sym_yield, ACTIONS 87), (sym_ellipsis, ACTIONS 89),
    (anon_sym___mlir_type, ACTIONS 91), (sym_integer, ACTIONS 93), (sym_float, ACTIONS 89),
    (anon_sym_await, ACTIONS 95), (sym_true, ACTIONS 93), (sym_false, ACTIONS 93),
    (sym_none, ACTIONS 93), (sym_comment, ACTIONS 3), (sym_line_continuation, ACTIONS 3),
    (sym__dedent, ACTIONS 129), (sym_string_start, ACTIONS 97)]"

definition parse_table_126 :: "(nat \<times> nat) list" where "parse_table_126 = [
    (sym__statement, STATE 925), (sym__simple_statements, STATE 925),
    (sym_import_statement, STATE 11814), (sym_future_import_statement, STATE 11814),
    (sym_import_from_statement, STATE 11814), (sym_print_statement, STATE 11814),
    (sym_assert_statement, STATE 11814), (sym_comptime_assert_statement, STATE 11814),
    (sym_expression_statement, STATE 11814), (sym_tuple_expression, STATE 12425),
    (sym_named_expression, STATE 7969), (sym__named_expression_lhs, STATE 12752),
    (sym_return_statement, STATE 11814), (sym_delete_statement, STATE 11814),
    (sym_raise_statement, STATE 11814), (sym_pass_statement, STATE 11814),
    (sym_break_statement, STATE 11814), (sym_continue_statement, STATE 11814),
    (sym_extension_definition, STATE 925), (sym_mlir_region, STATE 925),
    (sym_comptime_statement, STATE 925), (sym_if_statement, STATE 925),
    (sym_match_statement, STATE 925), (sym_for_statement, STATE 925),
    (sym_while_statement, STATE 925), (sym_try_statement, STATE 925),
    (sym_with_statement, STATE 925), (sym_function_definition, STATE 925),
    (sym_global_statement, STATE 11814), (sym_nonlocal_statement, STATE 11814),
    (sym_exec_statement, STATE 11814), (sym_type_alias_statement, STATE 11814),
    (sym_parameterized_alias_statement, STATE 11814), (sym_class_definition, STATE 925),
    (sym_trait_definition, STATE 925), (sym_decorated_definition, STATE 925),
    (sym_decorator, STATE 3670), (sym_block, STATE 4780), (sym_pattern, STATE 8086),
    (sym_tuple_pattern, STATE 8101), (sym_list_pattern, STATE 8101),
    (sym_list_splat_pattern, STATE 6819), (sym_as_pattern, STATE 7969),
    (sym_expression, STATE 9883), (sym_primary_expression, STATE 7326),
    (sym_comptime_expression, STATE 7017), (sym_transfer_expression, STATE 7017),
    (sym_not_operator, STATE 7969), (sym_boolean_operator, STATE 7969),
    (sym_binary_operator, STATE 7017), (sym_unary_operator, STATE 7017),
    (sym_comparison_operator, STATE 7969), (sym_lambda, STATE 7969),
    (sym_assignment, STATE 12425), (sym_augmented_assignment, STATE 12425),
    (sym_pattern_list, STATE 8578), (sym_yield, STATE 12425), (sym_attribute, STATE 6836),
    (sym_subscript, STATE 6838), (sym_call, STATE 6845), (sym_mlir_type, STATE 7017),
    (sym_list, STATE 7017), (sym_set, STATE 7017), (sym_tuple, STATE 7017),
    (sym_dictionary, STATE 7017), (sym_struct_literal, STATE 7017),
    (sym_list_comprehension, STATE 7017), (sym_dictionary_comprehension, STATE 7017),
    (sym_set_comprehension, STATE 7017), (sym_generator_expression, STATE 7017),
    (sym_parenthesized_expression, STATE 7017), (sym_conditional_expression, STATE 7969),
    (sym_concatenated_string, STATE 7017), (sym_string, STATE 6751), (sym_await, STATE 7017),
    (aux_sym_module_repeat1, STATE 925), (aux_sym_decorated_definition_repeat1, STATE 3670),
    (sym_identifier, ACTIONS 9), (anon_sym_import, ACTIONS 11), (anon_sym_from, ACTIONS 13),
    (anon_sym_LPAREN, ACTIONS 15), (anon_sym_STAR, ACTIONS 17), (anon_sym_print, ACTIONS 19),
    (anon_sym_comptime, ACTIONS 99), (anon_sym_assert, ACTIONS 23),
    (anon_sym___comptime_assert, ACTIONS 25), (anon_sym_return, ACTIONS 27),
    (anon_sym_del, ACTIONS 29), (anon_sym_raise, ACTIONS 31), (anon_sym_pass, ACTIONS 33),
    (anon_sym_break, ACTIONS 35), (anon_sym_continue, ACTIONS 37),
    (anon_sym___extension, ACTIONS 101), (anon_sym___mlir_region, ACTIONS 103),
    (anon_sym_if, ACTIONS 105), (anon_sym_match, ACTIONS 107), (anon_sym_async, ACTIONS 109),
    (anon_sym_for, ACTIONS 111), (anon_sym_while, ACTIONS 113), (anon_sym_try, ACTIONS 115),
    (anon_sym_with, ACTIONS 117), (anon_sym_def, ACTIONS 119), (anon_sym_fn, ACTIONS 119),
    (anon_sym_LBRACK, ACTIONS 59), (anon_sym_LBRACE, ACTIONS 61), (anon_sym_global, ACTIONS 63),
    (anon_sym_nonlocal, ACTIONS 65), (anon_sym_exec, ACTIONS 67), (anon_sym_type, ACTIONS 69),
    (anon_sym_class, ACTIONS 121), (anon_sym_struct, ACTIONS 121), (anon_sym_mut, ACTIONS 73),
    (anon_sym_out, ACTIONS 73), (anon_sym_trait, ACTIONS 123), (anon_sym_AT, ACTIONS 77),
    (anon_sym_DASH, ACTIONS 79), (anon_sym_PLUS, ACTIONS 79), (anon_sym_ref, ACTIONS 81),
    (anon_sym_var, ACTIONS 81), (anon_sym_not, ACTIONS 83), (anon_sym_TILDE, ACTIONS 79),
    (anon_sym_lambda, ACTIONS 85), (anon_sym_yield, ACTIONS 87), (sym_ellipsis, ACTIONS 89),
    (anon_sym___mlir_type, ACTIONS 91), (sym_integer, ACTIONS 93), (sym_float, ACTIONS 89),
    (anon_sym_await, ACTIONS 95), (sym_true, ACTIONS 93), (sym_false, ACTIONS 93),
    (sym_none, ACTIONS 93), (sym_comment, ACTIONS 3), (sym_line_continuation, ACTIONS 3),
    (sym__dedent, ACTIONS 129), (sym_string_start, ACTIONS 97)]"

definition parse_table_127 :: "(nat \<times> nat) list" where "parse_table_127 = [
    (sym__statement, STATE 925), (sym__simple_statements, STATE 925),
    (sym_import_statement, STATE 11814), (sym_future_import_statement, STATE 11814),
    (sym_import_from_statement, STATE 11814), (sym_print_statement, STATE 11814),
    (sym_assert_statement, STATE 11814), (sym_comptime_assert_statement, STATE 11814),
    (sym_expression_statement, STATE 11814), (sym_tuple_expression, STATE 12425),
    (sym_named_expression, STATE 7969), (sym__named_expression_lhs, STATE 12752),
    (sym_return_statement, STATE 11814), (sym_delete_statement, STATE 11814),
    (sym_raise_statement, STATE 11814), (sym_pass_statement, STATE 11814),
    (sym_break_statement, STATE 11814), (sym_continue_statement, STATE 11814),
    (sym_extension_definition, STATE 925), (sym_mlir_region, STATE 925),
    (sym_comptime_statement, STATE 925), (sym_if_statement, STATE 925),
    (sym_match_statement, STATE 925), (sym_for_statement, STATE 925),
    (sym_while_statement, STATE 925), (sym_try_statement, STATE 925),
    (sym_with_statement, STATE 925), (sym_function_definition, STATE 925),
    (sym_global_statement, STATE 11814), (sym_nonlocal_statement, STATE 11814),
    (sym_exec_statement, STATE 11814), (sym_type_alias_statement, STATE 11814),
    (sym_parameterized_alias_statement, STATE 11814), (sym_class_definition, STATE 925),
    (sym_trait_definition, STATE 925), (sym_decorated_definition, STATE 925),
    (sym_decorator, STATE 3670), (sym_block, STATE 4791), (sym_pattern, STATE 8086),
    (sym_tuple_pattern, STATE 8101), (sym_list_pattern, STATE 8101),
    (sym_list_splat_pattern, STATE 6819), (sym_as_pattern, STATE 7969),
    (sym_expression, STATE 9883), (sym_primary_expression, STATE 7326),
    (sym_comptime_expression, STATE 7017), (sym_transfer_expression, STATE 7017),
    (sym_not_operator, STATE 7969), (sym_boolean_operator, STATE 7969),
    (sym_binary_operator, STATE 7017), (sym_unary_operator, STATE 7017),
    (sym_comparison_operator, STATE 7969), (sym_lambda, STATE 7969),
    (sym_assignment, STATE 12425), (sym_augmented_assignment, STATE 12425),
    (sym_pattern_list, STATE 8578), (sym_yield, STATE 12425), (sym_attribute, STATE 6836),
    (sym_subscript, STATE 6838), (sym_call, STATE 6845), (sym_mlir_type, STATE 7017),
    (sym_list, STATE 7017), (sym_set, STATE 7017), (sym_tuple, STATE 7017),
    (sym_dictionary, STATE 7017), (sym_struct_literal, STATE 7017),
    (sym_list_comprehension, STATE 7017), (sym_dictionary_comprehension, STATE 7017),
    (sym_set_comprehension, STATE 7017), (sym_generator_expression, STATE 7017),
    (sym_parenthesized_expression, STATE 7017), (sym_conditional_expression, STATE 7969),
    (sym_concatenated_string, STATE 7017), (sym_string, STATE 6751), (sym_await, STATE 7017),
    (aux_sym_module_repeat1, STATE 925), (aux_sym_decorated_definition_repeat1, STATE 3670),
    (sym_identifier, ACTIONS 9), (anon_sym_import, ACTIONS 11), (anon_sym_from, ACTIONS 13),
    (anon_sym_LPAREN, ACTIONS 15), (anon_sym_STAR, ACTIONS 17), (anon_sym_print, ACTIONS 19),
    (anon_sym_comptime, ACTIONS 99), (anon_sym_assert, ACTIONS 23),
    (anon_sym___comptime_assert, ACTIONS 25), (anon_sym_return, ACTIONS 27),
    (anon_sym_del, ACTIONS 29), (anon_sym_raise, ACTIONS 31), (anon_sym_pass, ACTIONS 33),
    (anon_sym_break, ACTIONS 35), (anon_sym_continue, ACTIONS 37),
    (anon_sym___extension, ACTIONS 101), (anon_sym___mlir_region, ACTIONS 103),
    (anon_sym_if, ACTIONS 105), (anon_sym_match, ACTIONS 107), (anon_sym_async, ACTIONS 109),
    (anon_sym_for, ACTIONS 111), (anon_sym_while, ACTIONS 113), (anon_sym_try, ACTIONS 115),
    (anon_sym_with, ACTIONS 117), (anon_sym_def, ACTIONS 119), (anon_sym_fn, ACTIONS 119),
    (anon_sym_LBRACK, ACTIONS 59), (anon_sym_LBRACE, ACTIONS 61), (anon_sym_global, ACTIONS 63),
    (anon_sym_nonlocal, ACTIONS 65), (anon_sym_exec, ACTIONS 67), (anon_sym_type, ACTIONS 69),
    (anon_sym_class, ACTIONS 121), (anon_sym_struct, ACTIONS 121), (anon_sym_mut, ACTIONS 73),
    (anon_sym_out, ACTIONS 73), (anon_sym_trait, ACTIONS 123), (anon_sym_AT, ACTIONS 77),
    (anon_sym_DASH, ACTIONS 79), (anon_sym_PLUS, ACTIONS 79), (anon_sym_ref, ACTIONS 81),
    (anon_sym_var, ACTIONS 81), (anon_sym_not, ACTIONS 83), (anon_sym_TILDE, ACTIONS 79),
    (anon_sym_lambda, ACTIONS 85), (anon_sym_yield, ACTIONS 87), (sym_ellipsis, ACTIONS 89),
    (anon_sym___mlir_type, ACTIONS 91), (sym_integer, ACTIONS 93), (sym_float, ACTIONS 89),
    (anon_sym_await, ACTIONS 95), (sym_true, ACTIONS 93), (sym_false, ACTIONS 93),
    (sym_none, ACTIONS 93), (sym_comment, ACTIONS 3), (sym_line_continuation, ACTIONS 3),
    (sym__dedent, ACTIONS 129), (sym_string_start, ACTIONS 97)]"

definition parse_table_128 :: "(nat \<times> nat) list" where "parse_table_128 = [
    (sym__statement, STATE 928), (sym__simple_statements, STATE 928),
    (sym_import_statement, STATE 11814), (sym_future_import_statement, STATE 11814),
    (sym_import_from_statement, STATE 11814), (sym_print_statement, STATE 11814),
    (sym_assert_statement, STATE 11814), (sym_comptime_assert_statement, STATE 11814),
    (sym_expression_statement, STATE 11814), (sym_tuple_expression, STATE 12425),
    (sym_named_expression, STATE 7969), (sym__named_expression_lhs, STATE 12752),
    (sym_return_statement, STATE 11814), (sym_delete_statement, STATE 11814),
    (sym_raise_statement, STATE 11814), (sym_pass_statement, STATE 11814),
    (sym_break_statement, STATE 11814), (sym_continue_statement, STATE 11814),
    (sym_extension_definition, STATE 928), (sym_mlir_region, STATE 928),
    (sym_comptime_statement, STATE 928), (sym_if_statement, STATE 928),
    (sym_match_statement, STATE 928), (sym_for_statement, STATE 928),
    (sym_while_statement, STATE 928), (sym_try_statement, STATE 928),
    (sym_with_statement, STATE 928), (sym_function_definition, STATE 928),
    (sym_global_statement, STATE 11814), (sym_nonlocal_statement, STATE 11814),
    (sym_exec_statement, STATE 11814), (sym_type_alias_statement, STATE 11814),
    (sym_parameterized_alias_statement, STATE 11814), (sym_class_definition, STATE 928),
    (sym_trait_definition, STATE 928), (sym_decorated_definition, STATE 928),
    (sym_decorator, STATE 3670), (sym_block, STATE 12418), (sym_pattern, STATE 8086),
    (sym_tuple_pattern, STATE 8101), (sym_list_pattern, STATE 8101),
    (sym_list_splat_pattern, STATE 6819), (sym_as_pattern, STATE 7969),
    (sym_expression, STATE 9883), (sym_primary_expression, STATE 7326),
    (sym_comptime_expression, STATE 7017), (sym_transfer_expression, STATE 7017),
    (sym_not_operator, STATE 7969), (sym_boolean_operator, STATE 7969),
    (sym_binary_operator, STATE 7017), (sym_unary_operator, STATE 7017),
    (sym_comparison_operator, STATE 7969), (sym_lambda, STATE 7969),
    (sym_assignment, STATE 12425), (sym_augmented_assignment, STATE 12425),
    (sym_pattern_list, STATE 8578), (sym_yield, STATE 12425), (sym_attribute, STATE 6836),
    (sym_subscript, STATE 6838), (sym_call, STATE 6845), (sym_mlir_type, STATE 7017),
    (sym_list, STATE 7017), (sym_set, STATE 7017), (sym_tuple, STATE 7017),
    (sym_dictionary, STATE 7017), (sym_struct_literal, STATE 7017),
    (sym_list_comprehension, STATE 7017), (sym_dictionary_comprehension, STATE 7017),
    (sym_set_comprehension, STATE 7017), (sym_generator_expression, STATE 7017),
    (sym_parenthesized_expression, STATE 7017), (sym_conditional_expression, STATE 7969),
    (sym_concatenated_string, STATE 7017), (sym_string, STATE 6751), (sym_await, STATE 7017),
    (aux_sym_module_repeat1, STATE 928), (aux_sym_decorated_definition_repeat1, STATE 3670),
    (sym_identifier, ACTIONS 9), (anon_sym_import, ACTIONS 11), (anon_sym_from, ACTIONS 13),
    (anon_sym_LPAREN, ACTIONS 15), (anon_sym_STAR, ACTIONS 17), (anon_sym_print, ACTIONS 19),
    (anon_sym_comptime, ACTIONS 99), (anon_sym_assert, ACTIONS 23),
    (anon_sym___comptime_assert, ACTIONS 25), (anon_sym_return, ACTIONS 27),
    (anon_sym_del, ACTIONS 29), (anon_sym_raise, ACTIONS 31), (anon_sym_pass, ACTIONS 33),
    (anon_sym_break, ACTIONS 35), (anon_sym_continue, ACTIONS 37),
    (anon_sym___extension, ACTIONS 101), (anon_sym___mlir_region, ACTIONS 103),
    (anon_sym_if, ACTIONS 105), (anon_sym_match, ACTIONS 107), (anon_sym_async, ACTIONS 109),
    (anon_sym_for, ACTIONS 111), (anon_sym_while, ACTIONS 113), (anon_sym_try, ACTIONS 115),
    (anon_sym_with, ACTIONS 117), (anon_sym_def, ACTIONS 119), (anon_sym_fn, ACTIONS 119),
    (anon_sym_LBRACK, ACTIONS 59), (anon_sym_LBRACE, ACTIONS 61), (anon_sym_global, ACTIONS 63),
    (anon_sym_nonlocal, ACTIONS 65), (anon_sym_exec, ACTIONS 67), (anon_sym_type, ACTIONS 69),
    (anon_sym_class, ACTIONS 121), (anon_sym_struct, ACTIONS 121), (anon_sym_mut, ACTIONS 73),
    (anon_sym_out, ACTIONS 73), (anon_sym_trait, ACTIONS 123), (anon_sym_AT, ACTIONS 77),
    (anon_sym_DASH, ACTIONS 79), (anon_sym_PLUS, ACTIONS 79), (anon_sym_ref, ACTIONS 81),
    (anon_sym_var, ACTIONS 81), (anon_sym_not, ACTIONS 83), (anon_sym_TILDE, ACTIONS 79),
    (anon_sym_lambda, ACTIONS 85), (anon_sym_yield, ACTIONS 87), (sym_ellipsis, ACTIONS 89),
    (anon_sym___mlir_type, ACTIONS 91), (sym_integer, ACTIONS 93), (sym_float, ACTIONS 89),
    (anon_sym_await, ACTIONS 95), (sym_true, ACTIONS 93), (sym_false, ACTIONS 93),
    (sym_none, ACTIONS 93), (sym_comment, ACTIONS 3), (sym_line_continuation, ACTIONS 3),
    (sym__dedent, ACTIONS 133), (sym_string_start, ACTIONS 97)]"

definition parse_table_129 :: "(nat \<times> nat) list" where "parse_table_129 = [
    (sym__statement, STATE 925), (sym__simple_statements, STATE 925),
    (sym_import_statement, STATE 11814), (sym_future_import_statement, STATE 11814),
    (sym_import_from_statement, STATE 11814), (sym_print_statement, STATE 11814),
    (sym_assert_statement, STATE 11814), (sym_comptime_assert_statement, STATE 11814),
    (sym_expression_statement, STATE 11814), (sym_tuple_expression, STATE 12425),
    (sym_named_expression, STATE 7969), (sym__named_expression_lhs, STATE 12752),
    (sym_return_statement, STATE 11814), (sym_delete_statement, STATE 11814),
    (sym_raise_statement, STATE 11814), (sym_pass_statement, STATE 11814),
    (sym_break_statement, STATE 11814), (sym_continue_statement, STATE 11814),
    (sym_extension_definition, STATE 925), (sym_mlir_region, STATE 925),
    (sym_comptime_statement, STATE 925), (sym_if_statement, STATE 925),
    (sym_match_statement, STATE 925), (sym_for_statement, STATE 925),
    (sym_while_statement, STATE 925), (sym_try_statement, STATE 925),
    (sym_with_statement, STATE 925), (sym_function_definition, STATE 925),
    (sym_global_statement, STATE 11814), (sym_nonlocal_statement, STATE 11814),
    (sym_exec_statement, STATE 11814), (sym_type_alias_statement, STATE 11814),
    (sym_parameterized_alias_statement, STATE 11814), (sym_class_definition, STATE 925),
    (sym_trait_definition, STATE 925), (sym_decorated_definition, STATE 925),
    (sym_decorator, STATE 3670), (sym_block, STATE 4806), (sym_pattern, STATE 8086),
    (sym_tuple_pattern, STATE 8101), (sym_list_pattern, STATE 8101),
    (sym_list_splat_pattern, STATE 6819), (sym_as_pattern, STATE 7969),
    (sym_expression, STATE 9883), (sym_primary_expression, STATE 7326),
    (sym_comptime_expression, STATE 7017), (sym_transfer_expression, STATE 7017),
    (sym_not_operator, STATE 7969), (sym_boolean_operator, STATE 7969),
    (sym_binary_operator, STATE 7017), (sym_unary_operator, STATE 7017),
    (sym_comparison_operator, STATE 7969), (sym_lambda, STATE 7969),
    (sym_assignment, STATE 12425), (sym_augmented_assignment, STATE 12425),
    (sym_pattern_list, STATE 8578), (sym_yield, STATE 12425), (sym_attribute, STATE 6836),
    (sym_subscript, STATE 6838), (sym_call, STATE 6845), (sym_mlir_type, STATE 7017),
    (sym_list, STATE 7017), (sym_set, STATE 7017), (sym_tuple, STATE 7017),
    (sym_dictionary, STATE 7017), (sym_struct_literal, STATE 7017),
    (sym_list_comprehension, STATE 7017), (sym_dictionary_comprehension, STATE 7017),
    (sym_set_comprehension, STATE 7017), (sym_generator_expression, STATE 7017),
    (sym_parenthesized_expression, STATE 7017), (sym_conditional_expression, STATE 7969),
    (sym_concatenated_string, STATE 7017), (sym_string, STATE 6751), (sym_await, STATE 7017),
    (aux_sym_module_repeat1, STATE 925), (aux_sym_decorated_definition_repeat1, STATE 3670),
    (sym_identifier, ACTIONS 9), (anon_sym_import, ACTIONS 11), (anon_sym_from, ACTIONS 13),
    (anon_sym_LPAREN, ACTIONS 15), (anon_sym_STAR, ACTIONS 17), (anon_sym_print, ACTIONS 19),
    (anon_sym_comptime, ACTIONS 99), (anon_sym_assert, ACTIONS 23),
    (anon_sym___comptime_assert, ACTIONS 25), (anon_sym_return, ACTIONS 27),
    (anon_sym_del, ACTIONS 29), (anon_sym_raise, ACTIONS 31), (anon_sym_pass, ACTIONS 33),
    (anon_sym_break, ACTIONS 35), (anon_sym_continue, ACTIONS 37),
    (anon_sym___extension, ACTIONS 101), (anon_sym___mlir_region, ACTIONS 103),
    (anon_sym_if, ACTIONS 105), (anon_sym_match, ACTIONS 107), (anon_sym_async, ACTIONS 109),
    (anon_sym_for, ACTIONS 111), (anon_sym_while, ACTIONS 113), (anon_sym_try, ACTIONS 115),
    (anon_sym_with, ACTIONS 117), (anon_sym_def, ACTIONS 119), (anon_sym_fn, ACTIONS 119),
    (anon_sym_LBRACK, ACTIONS 59), (anon_sym_LBRACE, ACTIONS 61), (anon_sym_global, ACTIONS 63),
    (anon_sym_nonlocal, ACTIONS 65), (anon_sym_exec, ACTIONS 67), (anon_sym_type, ACTIONS 69),
    (anon_sym_class, ACTIONS 121), (anon_sym_struct, ACTIONS 121), (anon_sym_mut, ACTIONS 73),
    (anon_sym_out, ACTIONS 73), (anon_sym_trait, ACTIONS 123), (anon_sym_AT, ACTIONS 77),
    (anon_sym_DASH, ACTIONS 79), (anon_sym_PLUS, ACTIONS 79), (anon_sym_ref, ACTIONS 81),
    (anon_sym_var, ACTIONS 81), (anon_sym_not, ACTIONS 83), (anon_sym_TILDE, ACTIONS 79),
    (anon_sym_lambda, ACTIONS 85), (anon_sym_yield, ACTIONS 87), (sym_ellipsis, ACTIONS 89),
    (anon_sym___mlir_type, ACTIONS 91), (sym_integer, ACTIONS 93), (sym_float, ACTIONS 89),
    (anon_sym_await, ACTIONS 95), (sym_true, ACTIONS 93), (sym_false, ACTIONS 93),
    (sym_none, ACTIONS 93), (sym_comment, ACTIONS 3), (sym_line_continuation, ACTIONS 3),
    (sym__dedent, ACTIONS 129), (sym_string_start, ACTIONS 97)]"

definition parse_table_130 :: "(nat \<times> nat) list" where "parse_table_130 = [
    (sym__statement, STATE 925), (sym__simple_statements, STATE 925),
    (sym_import_statement, STATE 11814), (sym_future_import_statement, STATE 11814),
    (sym_import_from_statement, STATE 11814), (sym_print_statement, STATE 11814),
    (sym_assert_statement, STATE 11814), (sym_comptime_assert_statement, STATE 11814),
    (sym_expression_statement, STATE 11814), (sym_tuple_expression, STATE 12425),
    (sym_named_expression, STATE 7969), (sym__named_expression_lhs, STATE 12752),
    (sym_return_statement, STATE 11814), (sym_delete_statement, STATE 11814),
    (sym_raise_statement, STATE 11814), (sym_pass_statement, STATE 11814),
    (sym_break_statement, STATE 11814), (sym_continue_statement, STATE 11814),
    (sym_extension_definition, STATE 925), (sym_mlir_region, STATE 925),
    (sym_comptime_statement, STATE 925), (sym_if_statement, STATE 925),
    (sym_match_statement, STATE 925), (sym_for_statement, STATE 925),
    (sym_while_statement, STATE 925), (sym_try_statement, STATE 925),
    (sym_with_statement, STATE 925), (sym_function_definition, STATE 925),
    (sym_global_statement, STATE 11814), (sym_nonlocal_statement, STATE 11814),
    (sym_exec_statement, STATE 11814), (sym_type_alias_statement, STATE 11814),
    (sym_parameterized_alias_statement, STATE 11814), (sym_class_definition, STATE 925),
    (sym_trait_definition, STATE 925), (sym_decorated_definition, STATE 925),
    (sym_decorator, STATE 3670), (sym_block, STATE 4808), (sym_pattern, STATE 8086),
    (sym_tuple_pattern, STATE 8101), (sym_list_pattern, STATE 8101),
    (sym_list_splat_pattern, STATE 6819), (sym_as_pattern, STATE 7969),
    (sym_expression, STATE 9883), (sym_primary_expression, STATE 7326),
    (sym_comptime_expression, STATE 7017), (sym_transfer_expression, STATE 7017),
    (sym_not_operator, STATE 7969), (sym_boolean_operator, STATE 7969),
    (sym_binary_operator, STATE 7017), (sym_unary_operator, STATE 7017),
    (sym_comparison_operator, STATE 7969), (sym_lambda, STATE 7969),
    (sym_assignment, STATE 12425), (sym_augmented_assignment, STATE 12425),
    (sym_pattern_list, STATE 8578), (sym_yield, STATE 12425), (sym_attribute, STATE 6836),
    (sym_subscript, STATE 6838), (sym_call, STATE 6845), (sym_mlir_type, STATE 7017),
    (sym_list, STATE 7017), (sym_set, STATE 7017), (sym_tuple, STATE 7017),
    (sym_dictionary, STATE 7017), (sym_struct_literal, STATE 7017),
    (sym_list_comprehension, STATE 7017), (sym_dictionary_comprehension, STATE 7017),
    (sym_set_comprehension, STATE 7017), (sym_generator_expression, STATE 7017),
    (sym_parenthesized_expression, STATE 7017), (sym_conditional_expression, STATE 7969),
    (sym_concatenated_string, STATE 7017), (sym_string, STATE 6751), (sym_await, STATE 7017),
    (aux_sym_module_repeat1, STATE 925), (aux_sym_decorated_definition_repeat1, STATE 3670),
    (sym_identifier, ACTIONS 9), (anon_sym_import, ACTIONS 11), (anon_sym_from, ACTIONS 13),
    (anon_sym_LPAREN, ACTIONS 15), (anon_sym_STAR, ACTIONS 17), (anon_sym_print, ACTIONS 19),
    (anon_sym_comptime, ACTIONS 99), (anon_sym_assert, ACTIONS 23),
    (anon_sym___comptime_assert, ACTIONS 25), (anon_sym_return, ACTIONS 27),
    (anon_sym_del, ACTIONS 29), (anon_sym_raise, ACTIONS 31), (anon_sym_pass, ACTIONS 33),
    (anon_sym_break, ACTIONS 35), (anon_sym_continue, ACTIONS 37),
    (anon_sym___extension, ACTIONS 101), (anon_sym___mlir_region, ACTIONS 103),
    (anon_sym_if, ACTIONS 105), (anon_sym_match, ACTIONS 107), (anon_sym_async, ACTIONS 109),
    (anon_sym_for, ACTIONS 111), (anon_sym_while, ACTIONS 113), (anon_sym_try, ACTIONS 115),
    (anon_sym_with, ACTIONS 117), (anon_sym_def, ACTIONS 119), (anon_sym_fn, ACTIONS 119),
    (anon_sym_LBRACK, ACTIONS 59), (anon_sym_LBRACE, ACTIONS 61), (anon_sym_global, ACTIONS 63),
    (anon_sym_nonlocal, ACTIONS 65), (anon_sym_exec, ACTIONS 67), (anon_sym_type, ACTIONS 69),
    (anon_sym_class, ACTIONS 121), (anon_sym_struct, ACTIONS 121), (anon_sym_mut, ACTIONS 73),
    (anon_sym_out, ACTIONS 73), (anon_sym_trait, ACTIONS 123), (anon_sym_AT, ACTIONS 77),
    (anon_sym_DASH, ACTIONS 79), (anon_sym_PLUS, ACTIONS 79), (anon_sym_ref, ACTIONS 81),
    (anon_sym_var, ACTIONS 81), (anon_sym_not, ACTIONS 83), (anon_sym_TILDE, ACTIONS 79),
    (anon_sym_lambda, ACTIONS 85), (anon_sym_yield, ACTIONS 87), (sym_ellipsis, ACTIONS 89),
    (anon_sym___mlir_type, ACTIONS 91), (sym_integer, ACTIONS 93), (sym_float, ACTIONS 89),
    (anon_sym_await, ACTIONS 95), (sym_true, ACTIONS 93), (sym_false, ACTIONS 93),
    (sym_none, ACTIONS 93), (sym_comment, ACTIONS 3), (sym_line_continuation, ACTIONS 3),
    (sym__dedent, ACTIONS 129), (sym_string_start, ACTIONS 97)]"

definition parse_table_131 :: "(nat \<times> nat) list" where "parse_table_131 = [
    (sym__statement, STATE 925), (sym__simple_statements, STATE 925),
    (sym_import_statement, STATE 11814), (sym_future_import_statement, STATE 11814),
    (sym_import_from_statement, STATE 11814), (sym_print_statement, STATE 11814),
    (sym_assert_statement, STATE 11814), (sym_comptime_assert_statement, STATE 11814),
    (sym_expression_statement, STATE 11814), (sym_tuple_expression, STATE 12425),
    (sym_named_expression, STATE 7969), (sym__named_expression_lhs, STATE 12752),
    (sym_return_statement, STATE 11814), (sym_delete_statement, STATE 11814),
    (sym_raise_statement, STATE 11814), (sym_pass_statement, STATE 11814),
    (sym_break_statement, STATE 11814), (sym_continue_statement, STATE 11814),
    (sym_extension_definition, STATE 925), (sym_mlir_region, STATE 925),
    (sym_comptime_statement, STATE 925), (sym_if_statement, STATE 925),
    (sym_match_statement, STATE 925), (sym_for_statement, STATE 925),
    (sym_while_statement, STATE 925), (sym_try_statement, STATE 925),
    (sym_with_statement, STATE 925), (sym_function_definition, STATE 925),
    (sym_global_statement, STATE 11814), (sym_nonlocal_statement, STATE 11814),
    (sym_exec_statement, STATE 11814), (sym_type_alias_statement, STATE 11814),
    (sym_parameterized_alias_statement, STATE 11814), (sym_class_definition, STATE 925),
    (sym_trait_definition, STATE 925), (sym_decorated_definition, STATE 925),
    (sym_decorator, STATE 3670), (sym_block, STATE 4830), (sym_pattern, STATE 8086),
    (sym_tuple_pattern, STATE 8101), (sym_list_pattern, STATE 8101),
    (sym_list_splat_pattern, STATE 6819), (sym_as_pattern, STATE 7969),
    (sym_expression, STATE 9883), (sym_primary_expression, STATE 7326),
    (sym_comptime_expression, STATE 7017), (sym_transfer_expression, STATE 7017),
    (sym_not_operator, STATE 7969), (sym_boolean_operator, STATE 7969),
    (sym_binary_operator, STATE 7017), (sym_unary_operator, STATE 7017),
    (sym_comparison_operator, STATE 7969), (sym_lambda, STATE 7969),
    (sym_assignment, STATE 12425), (sym_augmented_assignment, STATE 12425),
    (sym_pattern_list, STATE 8578), (sym_yield, STATE 12425), (sym_attribute, STATE 6836),
    (sym_subscript, STATE 6838), (sym_call, STATE 6845), (sym_mlir_type, STATE 7017),
    (sym_list, STATE 7017), (sym_set, STATE 7017), (sym_tuple, STATE 7017),
    (sym_dictionary, STATE 7017), (sym_struct_literal, STATE 7017),
    (sym_list_comprehension, STATE 7017), (sym_dictionary_comprehension, STATE 7017),
    (sym_set_comprehension, STATE 7017), (sym_generator_expression, STATE 7017),
    (sym_parenthesized_expression, STATE 7017), (sym_conditional_expression, STATE 7969),
    (sym_concatenated_string, STATE 7017), (sym_string, STATE 6751), (sym_await, STATE 7017),
    (aux_sym_module_repeat1, STATE 925), (aux_sym_decorated_definition_repeat1, STATE 3670),
    (sym_identifier, ACTIONS 9), (anon_sym_import, ACTIONS 11), (anon_sym_from, ACTIONS 13),
    (anon_sym_LPAREN, ACTIONS 15), (anon_sym_STAR, ACTIONS 17), (anon_sym_print, ACTIONS 19),
    (anon_sym_comptime, ACTIONS 99), (anon_sym_assert, ACTIONS 23),
    (anon_sym___comptime_assert, ACTIONS 25), (anon_sym_return, ACTIONS 27),
    (anon_sym_del, ACTIONS 29), (anon_sym_raise, ACTIONS 31), (anon_sym_pass, ACTIONS 33),
    (anon_sym_break, ACTIONS 35), (anon_sym_continue, ACTIONS 37),
    (anon_sym___extension, ACTIONS 101), (anon_sym___mlir_region, ACTIONS 103),
    (anon_sym_if, ACTIONS 105), (anon_sym_match, ACTIONS 107), (anon_sym_async, ACTIONS 109),
    (anon_sym_for, ACTIONS 111), (anon_sym_while, ACTIONS 113), (anon_sym_try, ACTIONS 115),
    (anon_sym_with, ACTIONS 117), (anon_sym_def, ACTIONS 119), (anon_sym_fn, ACTIONS 119),
    (anon_sym_LBRACK, ACTIONS 59), (anon_sym_LBRACE, ACTIONS 61), (anon_sym_global, ACTIONS 63),
    (anon_sym_nonlocal, ACTIONS 65), (anon_sym_exec, ACTIONS 67), (anon_sym_type, ACTIONS 69),
    (anon_sym_class, ACTIONS 121), (anon_sym_struct, ACTIONS 121), (anon_sym_mut, ACTIONS 73),
    (anon_sym_out, ACTIONS 73), (anon_sym_trait, ACTIONS 123), (anon_sym_AT, ACTIONS 77),
    (anon_sym_DASH, ACTIONS 79), (anon_sym_PLUS, ACTIONS 79), (anon_sym_ref, ACTIONS 81),
    (anon_sym_var, ACTIONS 81), (anon_sym_not, ACTIONS 83), (anon_sym_TILDE, ACTIONS 79),
    (anon_sym_lambda, ACTIONS 85), (anon_sym_yield, ACTIONS 87), (sym_ellipsis, ACTIONS 89),
    (anon_sym___mlir_type, ACTIONS 91), (sym_integer, ACTIONS 93), (sym_float, ACTIONS 89),
    (anon_sym_await, ACTIONS 95), (sym_true, ACTIONS 93), (sym_false, ACTIONS 93),
    (sym_none, ACTIONS 93), (sym_comment, ACTIONS 3), (sym_line_continuation, ACTIONS 3),
    (sym__dedent, ACTIONS 129), (sym_string_start, ACTIONS 97)]"

definition parse_table_132 :: "(nat \<times> nat) list" where "parse_table_132 = [
    (sym__statement, STATE 925), (sym__simple_statements, STATE 925),
    (sym_import_statement, STATE 11814), (sym_future_import_statement, STATE 11814),
    (sym_import_from_statement, STATE 11814), (sym_print_statement, STATE 11814),
    (sym_assert_statement, STATE 11814), (sym_comptime_assert_statement, STATE 11814),
    (sym_expression_statement, STATE 11814), (sym_tuple_expression, STATE 12425),
    (sym_named_expression, STATE 7969), (sym__named_expression_lhs, STATE 12752),
    (sym_return_statement, STATE 11814), (sym_delete_statement, STATE 11814),
    (sym_raise_statement, STATE 11814), (sym_pass_statement, STATE 11814),
    (sym_break_statement, STATE 11814), (sym_continue_statement, STATE 11814),
    (sym_extension_definition, STATE 925), (sym_mlir_region, STATE 925),
    (sym_comptime_statement, STATE 925), (sym_if_statement, STATE 925),
    (sym_match_statement, STATE 925), (sym_for_statement, STATE 925),
    (sym_while_statement, STATE 925), (sym_try_statement, STATE 925),
    (sym_with_statement, STATE 925), (sym_function_definition, STATE 925),
    (sym_global_statement, STATE 11814), (sym_nonlocal_statement, STATE 11814),
    (sym_exec_statement, STATE 11814), (sym_type_alias_statement, STATE 11814),
    (sym_parameterized_alias_statement, STATE 11814), (sym_class_definition, STATE 925),
    (sym_trait_definition, STATE 925), (sym_decorated_definition, STATE 925),
    (sym_decorator, STATE 3670), (sym_block, STATE 4845), (sym_pattern, STATE 8086),
    (sym_tuple_pattern, STATE 8101), (sym_list_pattern, STATE 8101),
    (sym_list_splat_pattern, STATE 6819), (sym_as_pattern, STATE 7969),
    (sym_expression, STATE 9883), (sym_primary_expression, STATE 7326),
    (sym_comptime_expression, STATE 7017), (sym_transfer_expression, STATE 7017),
    (sym_not_operator, STATE 7969), (sym_boolean_operator, STATE 7969),
    (sym_binary_operator, STATE 7017), (sym_unary_operator, STATE 7017),
    (sym_comparison_operator, STATE 7969), (sym_lambda, STATE 7969),
    (sym_assignment, STATE 12425), (sym_augmented_assignment, STATE 12425),
    (sym_pattern_list, STATE 8578), (sym_yield, STATE 12425), (sym_attribute, STATE 6836),
    (sym_subscript, STATE 6838), (sym_call, STATE 6845), (sym_mlir_type, STATE 7017),
    (sym_list, STATE 7017), (sym_set, STATE 7017), (sym_tuple, STATE 7017),
    (sym_dictionary, STATE 7017), (sym_struct_literal, STATE 7017),
    (sym_list_comprehension, STATE 7017), (sym_dictionary_comprehension, STATE 7017),
    (sym_set_comprehension, STATE 7017), (sym_generator_expression, STATE 7017),
    (sym_parenthesized_expression, STATE 7017), (sym_conditional_expression, STATE 7969),
    (sym_concatenated_string, STATE 7017), (sym_string, STATE 6751), (sym_await, STATE 7017),
    (aux_sym_module_repeat1, STATE 925), (aux_sym_decorated_definition_repeat1, STATE 3670),
    (sym_identifier, ACTIONS 9), (anon_sym_import, ACTIONS 11), (anon_sym_from, ACTIONS 13),
    (anon_sym_LPAREN, ACTIONS 15), (anon_sym_STAR, ACTIONS 17), (anon_sym_print, ACTIONS 19),
    (anon_sym_comptime, ACTIONS 99), (anon_sym_assert, ACTIONS 23),
    (anon_sym___comptime_assert, ACTIONS 25), (anon_sym_return, ACTIONS 27),
    (anon_sym_del, ACTIONS 29), (anon_sym_raise, ACTIONS 31), (anon_sym_pass, ACTIONS 33),
    (anon_sym_break, ACTIONS 35), (anon_sym_continue, ACTIONS 37),
    (anon_sym___extension, ACTIONS 101), (anon_sym___mlir_region, ACTIONS 103),
    (anon_sym_if, ACTIONS 105), (anon_sym_match, ACTIONS 107), (anon_sym_async, ACTIONS 109),
    (anon_sym_for, ACTIONS 111), (anon_sym_while, ACTIONS 113), (anon_sym_try, ACTIONS 115),
    (anon_sym_with, ACTIONS 117), (anon_sym_def, ACTIONS 119), (anon_sym_fn, ACTIONS 119),
    (anon_sym_LBRACK, ACTIONS 59), (anon_sym_LBRACE, ACTIONS 61), (anon_sym_global, ACTIONS 63),
    (anon_sym_nonlocal, ACTIONS 65), (anon_sym_exec, ACTIONS 67), (anon_sym_type, ACTIONS 69),
    (anon_sym_class, ACTIONS 121), (anon_sym_struct, ACTIONS 121), (anon_sym_mut, ACTIONS 73),
    (anon_sym_out, ACTIONS 73), (anon_sym_trait, ACTIONS 123), (anon_sym_AT, ACTIONS 77),
    (anon_sym_DASH, ACTIONS 79), (anon_sym_PLUS, ACTIONS 79), (anon_sym_ref, ACTIONS 81),
    (anon_sym_var, ACTIONS 81), (anon_sym_not, ACTIONS 83), (anon_sym_TILDE, ACTIONS 79),
    (anon_sym_lambda, ACTIONS 85), (anon_sym_yield, ACTIONS 87), (sym_ellipsis, ACTIONS 89),
    (anon_sym___mlir_type, ACTIONS 91), (sym_integer, ACTIONS 93), (sym_float, ACTIONS 89),
    (anon_sym_await, ACTIONS 95), (sym_true, ACTIONS 93), (sym_false, ACTIONS 93),
    (sym_none, ACTIONS 93), (sym_comment, ACTIONS 3), (sym_line_continuation, ACTIONS 3),
    (sym__dedent, ACTIONS 129), (sym_string_start, ACTIONS 97)]"

definition parse_table_133 :: "(nat \<times> nat) list" where "parse_table_133 = [
    (sym__statement, STATE 925), (sym__simple_statements, STATE 925),
    (sym_import_statement, STATE 11814), (sym_future_import_statement, STATE 11814),
    (sym_import_from_statement, STATE 11814), (sym_print_statement, STATE 11814),
    (sym_assert_statement, STATE 11814), (sym_comptime_assert_statement, STATE 11814),
    (sym_expression_statement, STATE 11814), (sym_tuple_expression, STATE 12425),
    (sym_named_expression, STATE 7969), (sym__named_expression_lhs, STATE 12752),
    (sym_return_statement, STATE 11814), (sym_delete_statement, STATE 11814),
    (sym_raise_statement, STATE 11814), (sym_pass_statement, STATE 11814),
    (sym_break_statement, STATE 11814), (sym_continue_statement, STATE 11814),
    (sym_extension_definition, STATE 925), (sym_mlir_region, STATE 925),
    (sym_comptime_statement, STATE 925), (sym_if_statement, STATE 925),
    (sym_match_statement, STATE 925), (sym_for_statement, STATE 925),
    (sym_while_statement, STATE 925), (sym_try_statement, STATE 925),
    (sym_with_statement, STATE 925), (sym_function_definition, STATE 925),
    (sym_global_statement, STATE 11814), (sym_nonlocal_statement, STATE 11814),
    (sym_exec_statement, STATE 11814), (sym_type_alias_statement, STATE 11814),
    (sym_parameterized_alias_statement, STATE 11814), (sym_class_definition, STATE 925),
    (sym_trait_definition, STATE 925), (sym_decorated_definition, STATE 925),
    (sym_decorator, STATE 3670), (sym_block, STATE 4865), (sym_pattern, STATE 8086),
    (sym_tuple_pattern, STATE 8101), (sym_list_pattern, STATE 8101),
    (sym_list_splat_pattern, STATE 6819), (sym_as_pattern, STATE 7969),
    (sym_expression, STATE 9883), (sym_primary_expression, STATE 7326),
    (sym_comptime_expression, STATE 7017), (sym_transfer_expression, STATE 7017),
    (sym_not_operator, STATE 7969), (sym_boolean_operator, STATE 7969),
    (sym_binary_operator, STATE 7017), (sym_unary_operator, STATE 7017),
    (sym_comparison_operator, STATE 7969), (sym_lambda, STATE 7969),
    (sym_assignment, STATE 12425), (sym_augmented_assignment, STATE 12425),
    (sym_pattern_list, STATE 8578), (sym_yield, STATE 12425), (sym_attribute, STATE 6836),
    (sym_subscript, STATE 6838), (sym_call, STATE 6845), (sym_mlir_type, STATE 7017),
    (sym_list, STATE 7017), (sym_set, STATE 7017), (sym_tuple, STATE 7017),
    (sym_dictionary, STATE 7017), (sym_struct_literal, STATE 7017),
    (sym_list_comprehension, STATE 7017), (sym_dictionary_comprehension, STATE 7017),
    (sym_set_comprehension, STATE 7017), (sym_generator_expression, STATE 7017),
    (sym_parenthesized_expression, STATE 7017), (sym_conditional_expression, STATE 7969),
    (sym_concatenated_string, STATE 7017), (sym_string, STATE 6751), (sym_await, STATE 7017),
    (aux_sym_module_repeat1, STATE 925), (aux_sym_decorated_definition_repeat1, STATE 3670),
    (sym_identifier, ACTIONS 9), (anon_sym_import, ACTIONS 11), (anon_sym_from, ACTIONS 13),
    (anon_sym_LPAREN, ACTIONS 15), (anon_sym_STAR, ACTIONS 17), (anon_sym_print, ACTIONS 19),
    (anon_sym_comptime, ACTIONS 99), (anon_sym_assert, ACTIONS 23),
    (anon_sym___comptime_assert, ACTIONS 25), (anon_sym_return, ACTIONS 27),
    (anon_sym_del, ACTIONS 29), (anon_sym_raise, ACTIONS 31), (anon_sym_pass, ACTIONS 33),
    (anon_sym_break, ACTIONS 35), (anon_sym_continue, ACTIONS 37),
    (anon_sym___extension, ACTIONS 101), (anon_sym___mlir_region, ACTIONS 103),
    (anon_sym_if, ACTIONS 105), (anon_sym_match, ACTIONS 107), (anon_sym_async, ACTIONS 109),
    (anon_sym_for, ACTIONS 111), (anon_sym_while, ACTIONS 113), (anon_sym_try, ACTIONS 115),
    (anon_sym_with, ACTIONS 117), (anon_sym_def, ACTIONS 119), (anon_sym_fn, ACTIONS 119),
    (anon_sym_LBRACK, ACTIONS 59), (anon_sym_LBRACE, ACTIONS 61), (anon_sym_global, ACTIONS 63),
    (anon_sym_nonlocal, ACTIONS 65), (anon_sym_exec, ACTIONS 67), (anon_sym_type, ACTIONS 69),
    (anon_sym_class, ACTIONS 121), (anon_sym_struct, ACTIONS 121), (anon_sym_mut, ACTIONS 73),
    (anon_sym_out, ACTIONS 73), (anon_sym_trait, ACTIONS 123), (anon_sym_AT, ACTIONS 77),
    (anon_sym_DASH, ACTIONS 79), (anon_sym_PLUS, ACTIONS 79), (anon_sym_ref, ACTIONS 81),
    (anon_sym_var, ACTIONS 81), (anon_sym_not, ACTIONS 83), (anon_sym_TILDE, ACTIONS 79),
    (anon_sym_lambda, ACTIONS 85), (anon_sym_yield, ACTIONS 87), (sym_ellipsis, ACTIONS 89),
    (anon_sym___mlir_type, ACTIONS 91), (sym_integer, ACTIONS 93), (sym_float, ACTIONS 89),
    (anon_sym_await, ACTIONS 95), (sym_true, ACTIONS 93), (sym_false, ACTIONS 93),
    (sym_none, ACTIONS 93), (sym_comment, ACTIONS 3), (sym_line_continuation, ACTIONS 3),
    (sym__dedent, ACTIONS 129), (sym_string_start, ACTIONS 97)]"

definition parse_table_134 :: "(nat \<times> nat) list" where "parse_table_134 = [
    (sym__statement, STATE 925), (sym__simple_statements, STATE 925),
    (sym_import_statement, STATE 11814), (sym_future_import_statement, STATE 11814),
    (sym_import_from_statement, STATE 11814), (sym_print_statement, STATE 11814),
    (sym_assert_statement, STATE 11814), (sym_comptime_assert_statement, STATE 11814),
    (sym_expression_statement, STATE 11814), (sym_tuple_expression, STATE 12425),
    (sym_named_expression, STATE 7969), (sym__named_expression_lhs, STATE 12752),
    (sym_return_statement, STATE 11814), (sym_delete_statement, STATE 11814),
    (sym_raise_statement, STATE 11814), (sym_pass_statement, STATE 11814),
    (sym_break_statement, STATE 11814), (sym_continue_statement, STATE 11814),
    (sym_extension_definition, STATE 925), (sym_mlir_region, STATE 925),
    (sym_comptime_statement, STATE 925), (sym_if_statement, STATE 925),
    (sym_match_statement, STATE 925), (sym_for_statement, STATE 925),
    (sym_while_statement, STATE 925), (sym_try_statement, STATE 925),
    (sym_with_statement, STATE 925), (sym_function_definition, STATE 925),
    (sym_global_statement, STATE 11814), (sym_nonlocal_statement, STATE 11814),
    (sym_exec_statement, STATE 11814), (sym_type_alias_statement, STATE 11814),
    (sym_parameterized_alias_statement, STATE 11814), (sym_class_definition, STATE 925),
    (sym_trait_definition, STATE 925), (sym_decorated_definition, STATE 925),
    (sym_decorator, STATE 3670), (sym_block, STATE 4866), (sym_pattern, STATE 8086),
    (sym_tuple_pattern, STATE 8101), (sym_list_pattern, STATE 8101),
    (sym_list_splat_pattern, STATE 6819), (sym_as_pattern, STATE 7969),
    (sym_expression, STATE 9883), (sym_primary_expression, STATE 7326),
    (sym_comptime_expression, STATE 7017), (sym_transfer_expression, STATE 7017),
    (sym_not_operator, STATE 7969), (sym_boolean_operator, STATE 7969),
    (sym_binary_operator, STATE 7017), (sym_unary_operator, STATE 7017),
    (sym_comparison_operator, STATE 7969), (sym_lambda, STATE 7969),
    (sym_assignment, STATE 12425), (sym_augmented_assignment, STATE 12425),
    (sym_pattern_list, STATE 8578), (sym_yield, STATE 12425), (sym_attribute, STATE 6836),
    (sym_subscript, STATE 6838), (sym_call, STATE 6845), (sym_mlir_type, STATE 7017),
    (sym_list, STATE 7017), (sym_set, STATE 7017), (sym_tuple, STATE 7017),
    (sym_dictionary, STATE 7017), (sym_struct_literal, STATE 7017),
    (sym_list_comprehension, STATE 7017), (sym_dictionary_comprehension, STATE 7017),
    (sym_set_comprehension, STATE 7017), (sym_generator_expression, STATE 7017),
    (sym_parenthesized_expression, STATE 7017), (sym_conditional_expression, STATE 7969),
    (sym_concatenated_string, STATE 7017), (sym_string, STATE 6751), (sym_await, STATE 7017),
    (aux_sym_module_repeat1, STATE 925), (aux_sym_decorated_definition_repeat1, STATE 3670),
    (sym_identifier, ACTIONS 9), (anon_sym_import, ACTIONS 11), (anon_sym_from, ACTIONS 13),
    (anon_sym_LPAREN, ACTIONS 15), (anon_sym_STAR, ACTIONS 17), (anon_sym_print, ACTIONS 19),
    (anon_sym_comptime, ACTIONS 99), (anon_sym_assert, ACTIONS 23),
    (anon_sym___comptime_assert, ACTIONS 25), (anon_sym_return, ACTIONS 27),
    (anon_sym_del, ACTIONS 29), (anon_sym_raise, ACTIONS 31), (anon_sym_pass, ACTIONS 33),
    (anon_sym_break, ACTIONS 35), (anon_sym_continue, ACTIONS 37),
    (anon_sym___extension, ACTIONS 101), (anon_sym___mlir_region, ACTIONS 103),
    (anon_sym_if, ACTIONS 105), (anon_sym_match, ACTIONS 107), (anon_sym_async, ACTIONS 109),
    (anon_sym_for, ACTIONS 111), (anon_sym_while, ACTIONS 113), (anon_sym_try, ACTIONS 115),
    (anon_sym_with, ACTIONS 117), (anon_sym_def, ACTIONS 119), (anon_sym_fn, ACTIONS 119),
    (anon_sym_LBRACK, ACTIONS 59), (anon_sym_LBRACE, ACTIONS 61), (anon_sym_global, ACTIONS 63),
    (anon_sym_nonlocal, ACTIONS 65), (anon_sym_exec, ACTIONS 67), (anon_sym_type, ACTIONS 69),
    (anon_sym_class, ACTIONS 121), (anon_sym_struct, ACTIONS 121), (anon_sym_mut, ACTIONS 73),
    (anon_sym_out, ACTIONS 73), (anon_sym_trait, ACTIONS 123), (anon_sym_AT, ACTIONS 77),
    (anon_sym_DASH, ACTIONS 79), (anon_sym_PLUS, ACTIONS 79), (anon_sym_ref, ACTIONS 81),
    (anon_sym_var, ACTIONS 81), (anon_sym_not, ACTIONS 83), (anon_sym_TILDE, ACTIONS 79),
    (anon_sym_lambda, ACTIONS 85), (anon_sym_yield, ACTIONS 87), (sym_ellipsis, ACTIONS 89),
    (anon_sym___mlir_type, ACTIONS 91), (sym_integer, ACTIONS 93), (sym_float, ACTIONS 89),
    (anon_sym_await, ACTIONS 95), (sym_true, ACTIONS 93), (sym_false, ACTIONS 93),
    (sym_none, ACTIONS 93), (sym_comment, ACTIONS 3), (sym_line_continuation, ACTIONS 3),
    (sym__dedent, ACTIONS 129), (sym_string_start, ACTIONS 97)]"

definition parse_table_135 :: "(nat \<times> nat) list" where "parse_table_135 = [
    (sym__statement, STATE 925), (sym__simple_statements, STATE 925),
    (sym_import_statement, STATE 11814), (sym_future_import_statement, STATE 11814),
    (sym_import_from_statement, STATE 11814), (sym_print_statement, STATE 11814),
    (sym_assert_statement, STATE 11814), (sym_comptime_assert_statement, STATE 11814),
    (sym_expression_statement, STATE 11814), (sym_tuple_expression, STATE 12425),
    (sym_named_expression, STATE 7969), (sym__named_expression_lhs, STATE 12752),
    (sym_return_statement, STATE 11814), (sym_delete_statement, STATE 11814),
    (sym_raise_statement, STATE 11814), (sym_pass_statement, STATE 11814),
    (sym_break_statement, STATE 11814), (sym_continue_statement, STATE 11814),
    (sym_extension_definition, STATE 925), (sym_mlir_region, STATE 925),
    (sym_comptime_statement, STATE 925), (sym_if_statement, STATE 925),
    (sym_match_statement, STATE 925), (sym_for_statement, STATE 925),
    (sym_while_statement, STATE 925), (sym_try_statement, STATE 925),
    (sym_with_statement, STATE 925), (sym_function_definition, STATE 925),
    (sym_global_statement, STATE 11814), (sym_nonlocal_statement, STATE 11814),
    (sym_exec_statement, STATE 11814), (sym_type_alias_statement, STATE 11814),
    (sym_parameterized_alias_statement, STATE 11814), (sym_class_definition, STATE 925),
    (sym_trait_definition, STATE 925), (sym_decorated_definition, STATE 925),
    (sym_decorator, STATE 3670), (sym_block, STATE 4867), (sym_pattern, STATE 8086),
    (sym_tuple_pattern, STATE 8101), (sym_list_pattern, STATE 8101),
    (sym_list_splat_pattern, STATE 6819), (sym_as_pattern, STATE 7969),
    (sym_expression, STATE 9883), (sym_primary_expression, STATE 7326),
    (sym_comptime_expression, STATE 7017), (sym_transfer_expression, STATE 7017),
    (sym_not_operator, STATE 7969), (sym_boolean_operator, STATE 7969),
    (sym_binary_operator, STATE 7017), (sym_unary_operator, STATE 7017),
    (sym_comparison_operator, STATE 7969), (sym_lambda, STATE 7969),
    (sym_assignment, STATE 12425), (sym_augmented_assignment, STATE 12425),
    (sym_pattern_list, STATE 8578), (sym_yield, STATE 12425), (sym_attribute, STATE 6836),
    (sym_subscript, STATE 6838), (sym_call, STATE 6845), (sym_mlir_type, STATE 7017),
    (sym_list, STATE 7017), (sym_set, STATE 7017), (sym_tuple, STATE 7017),
    (sym_dictionary, STATE 7017), (sym_struct_literal, STATE 7017),
    (sym_list_comprehension, STATE 7017), (sym_dictionary_comprehension, STATE 7017),
    (sym_set_comprehension, STATE 7017), (sym_generator_expression, STATE 7017),
    (sym_parenthesized_expression, STATE 7017), (sym_conditional_expression, STATE 7969),
    (sym_concatenated_string, STATE 7017), (sym_string, STATE 6751), (sym_await, STATE 7017),
    (aux_sym_module_repeat1, STATE 925), (aux_sym_decorated_definition_repeat1, STATE 3670),
    (sym_identifier, ACTIONS 9), (anon_sym_import, ACTIONS 11), (anon_sym_from, ACTIONS 13),
    (anon_sym_LPAREN, ACTIONS 15), (anon_sym_STAR, ACTIONS 17), (anon_sym_print, ACTIONS 19),
    (anon_sym_comptime, ACTIONS 99), (anon_sym_assert, ACTIONS 23),
    (anon_sym___comptime_assert, ACTIONS 25), (anon_sym_return, ACTIONS 27),
    (anon_sym_del, ACTIONS 29), (anon_sym_raise, ACTIONS 31), (anon_sym_pass, ACTIONS 33),
    (anon_sym_break, ACTIONS 35), (anon_sym_continue, ACTIONS 37),
    (anon_sym___extension, ACTIONS 101), (anon_sym___mlir_region, ACTIONS 103),
    (anon_sym_if, ACTIONS 105), (anon_sym_match, ACTIONS 107), (anon_sym_async, ACTIONS 109),
    (anon_sym_for, ACTIONS 111), (anon_sym_while, ACTIONS 113), (anon_sym_try, ACTIONS 115),
    (anon_sym_with, ACTIONS 117), (anon_sym_def, ACTIONS 119), (anon_sym_fn, ACTIONS 119),
    (anon_sym_LBRACK, ACTIONS 59), (anon_sym_LBRACE, ACTIONS 61), (anon_sym_global, ACTIONS 63),
    (anon_sym_nonlocal, ACTIONS 65), (anon_sym_exec, ACTIONS 67), (anon_sym_type, ACTIONS 69),
    (anon_sym_class, ACTIONS 121), (anon_sym_struct, ACTIONS 121), (anon_sym_mut, ACTIONS 73),
    (anon_sym_out, ACTIONS 73), (anon_sym_trait, ACTIONS 123), (anon_sym_AT, ACTIONS 77),
    (anon_sym_DASH, ACTIONS 79), (anon_sym_PLUS, ACTIONS 79), (anon_sym_ref, ACTIONS 81),
    (anon_sym_var, ACTIONS 81), (anon_sym_not, ACTIONS 83), (anon_sym_TILDE, ACTIONS 79),
    (anon_sym_lambda, ACTIONS 85), (anon_sym_yield, ACTIONS 87), (sym_ellipsis, ACTIONS 89),
    (anon_sym___mlir_type, ACTIONS 91), (sym_integer, ACTIONS 93), (sym_float, ACTIONS 89),
    (anon_sym_await, ACTIONS 95), (sym_true, ACTIONS 93), (sym_false, ACTIONS 93),
    (sym_none, ACTIONS 93), (sym_comment, ACTIONS 3), (sym_line_continuation, ACTIONS 3),
    (sym__dedent, ACTIONS 129), (sym_string_start, ACTIONS 97)]"

definition parse_table_136 :: "(nat \<times> nat) list" where "parse_table_136 = [
    (sym__statement, STATE 925), (sym__simple_statements, STATE 925),
    (sym_import_statement, STATE 11814), (sym_future_import_statement, STATE 11814),
    (sym_import_from_statement, STATE 11814), (sym_print_statement, STATE 11814),
    (sym_assert_statement, STATE 11814), (sym_comptime_assert_statement, STATE 11814),
    (sym_expression_statement, STATE 11814), (sym_tuple_expression, STATE 12425),
    (sym_named_expression, STATE 7969), (sym__named_expression_lhs, STATE 12752),
    (sym_return_statement, STATE 11814), (sym_delete_statement, STATE 11814),
    (sym_raise_statement, STATE 11814), (sym_pass_statement, STATE 11814),
    (sym_break_statement, STATE 11814), (sym_continue_statement, STATE 11814),
    (sym_extension_definition, STATE 925), (sym_mlir_region, STATE 925),
    (sym_comptime_statement, STATE 925), (sym_if_statement, STATE 925),
    (sym_match_statement, STATE 925), (sym_for_statement, STATE 925),
    (sym_while_statement, STATE 925), (sym_try_statement, STATE 925),
    (sym_with_statement, STATE 925), (sym_function_definition, STATE 925),
    (sym_global_statement, STATE 11814), (sym_nonlocal_statement, STATE 11814),
    (sym_exec_statement, STATE 11814), (sym_type_alias_statement, STATE 11814),
    (sym_parameterized_alias_statement, STATE 11814), (sym_class_definition, STATE 925),
    (sym_trait_definition, STATE 925), (sym_decorated_definition, STATE 925),
    (sym_decorator, STATE 3670), (sym_block, STATE 4871), (sym_pattern, STATE 8086),
    (sym_tuple_pattern, STATE 8101), (sym_list_pattern, STATE 8101),
    (sym_list_splat_pattern, STATE 6819), (sym_as_pattern, STATE 7969),
    (sym_expression, STATE 9883), (sym_primary_expression, STATE 7326),
    (sym_comptime_expression, STATE 7017), (sym_transfer_expression, STATE 7017),
    (sym_not_operator, STATE 7969), (sym_boolean_operator, STATE 7969),
    (sym_binary_operator, STATE 7017), (sym_unary_operator, STATE 7017),
    (sym_comparison_operator, STATE 7969), (sym_lambda, STATE 7969),
    (sym_assignment, STATE 12425), (sym_augmented_assignment, STATE 12425),
    (sym_pattern_list, STATE 8578), (sym_yield, STATE 12425), (sym_attribute, STATE 6836),
    (sym_subscript, STATE 6838), (sym_call, STATE 6845), (sym_mlir_type, STATE 7017),
    (sym_list, STATE 7017), (sym_set, STATE 7017), (sym_tuple, STATE 7017),
    (sym_dictionary, STATE 7017), (sym_struct_literal, STATE 7017),
    (sym_list_comprehension, STATE 7017), (sym_dictionary_comprehension, STATE 7017),
    (sym_set_comprehension, STATE 7017), (sym_generator_expression, STATE 7017),
    (sym_parenthesized_expression, STATE 7017), (sym_conditional_expression, STATE 7969),
    (sym_concatenated_string, STATE 7017), (sym_string, STATE 6751), (sym_await, STATE 7017),
    (aux_sym_module_repeat1, STATE 925), (aux_sym_decorated_definition_repeat1, STATE 3670),
    (sym_identifier, ACTIONS 9), (anon_sym_import, ACTIONS 11), (anon_sym_from, ACTIONS 13),
    (anon_sym_LPAREN, ACTIONS 15), (anon_sym_STAR, ACTIONS 17), (anon_sym_print, ACTIONS 19),
    (anon_sym_comptime, ACTIONS 99), (anon_sym_assert, ACTIONS 23),
    (anon_sym___comptime_assert, ACTIONS 25), (anon_sym_return, ACTIONS 27),
    (anon_sym_del, ACTIONS 29), (anon_sym_raise, ACTIONS 31), (anon_sym_pass, ACTIONS 33),
    (anon_sym_break, ACTIONS 35), (anon_sym_continue, ACTIONS 37),
    (anon_sym___extension, ACTIONS 101), (anon_sym___mlir_region, ACTIONS 103),
    (anon_sym_if, ACTIONS 105), (anon_sym_match, ACTIONS 107), (anon_sym_async, ACTIONS 109),
    (anon_sym_for, ACTIONS 111), (anon_sym_while, ACTIONS 113), (anon_sym_try, ACTIONS 115),
    (anon_sym_with, ACTIONS 117), (anon_sym_def, ACTIONS 119), (anon_sym_fn, ACTIONS 119),
    (anon_sym_LBRACK, ACTIONS 59), (anon_sym_LBRACE, ACTIONS 61), (anon_sym_global, ACTIONS 63),
    (anon_sym_nonlocal, ACTIONS 65), (anon_sym_exec, ACTIONS 67), (anon_sym_type, ACTIONS 69),
    (anon_sym_class, ACTIONS 121), (anon_sym_struct, ACTIONS 121), (anon_sym_mut, ACTIONS 73),
    (anon_sym_out, ACTIONS 73), (anon_sym_trait, ACTIONS 123), (anon_sym_AT, ACTIONS 77),
    (anon_sym_DASH, ACTIONS 79), (anon_sym_PLUS, ACTIONS 79), (anon_sym_ref, ACTIONS 81),
    (anon_sym_var, ACTIONS 81), (anon_sym_not, ACTIONS 83), (anon_sym_TILDE, ACTIONS 79),
    (anon_sym_lambda, ACTIONS 85), (anon_sym_yield, ACTIONS 87), (sym_ellipsis, ACTIONS 89),
    (anon_sym___mlir_type, ACTIONS 91), (sym_integer, ACTIONS 93), (sym_float, ACTIONS 89),
    (anon_sym_await, ACTIONS 95), (sym_true, ACTIONS 93), (sym_false, ACTIONS 93),
    (sym_none, ACTIONS 93), (sym_comment, ACTIONS 3), (sym_line_continuation, ACTIONS 3),
    (sym__dedent, ACTIONS 129), (sym_string_start, ACTIONS 97)]"

definition parse_table_137 :: "(nat \<times> nat) list" where "parse_table_137 = [
    (sym__statement, STATE 925), (sym__simple_statements, STATE 925),
    (sym_import_statement, STATE 11814), (sym_future_import_statement, STATE 11814),
    (sym_import_from_statement, STATE 11814), (sym_print_statement, STATE 11814),
    (sym_assert_statement, STATE 11814), (sym_comptime_assert_statement, STATE 11814),
    (sym_expression_statement, STATE 11814), (sym_tuple_expression, STATE 12425),
    (sym_named_expression, STATE 7969), (sym__named_expression_lhs, STATE 12752),
    (sym_return_statement, STATE 11814), (sym_delete_statement, STATE 11814),
    (sym_raise_statement, STATE 11814), (sym_pass_statement, STATE 11814),
    (sym_break_statement, STATE 11814), (sym_continue_statement, STATE 11814),
    (sym_extension_definition, STATE 925), (sym_mlir_region, STATE 925),
    (sym_comptime_statement, STATE 925), (sym_if_statement, STATE 925),
    (sym_match_statement, STATE 925), (sym_for_statement, STATE 925),
    (sym_while_statement, STATE 925), (sym_try_statement, STATE 925),
    (sym_with_statement, STATE 925), (sym_function_definition, STATE 925),
    (sym_global_statement, STATE 11814), (sym_nonlocal_statement, STATE 11814),
    (sym_exec_statement, STATE 11814), (sym_type_alias_statement, STATE 11814),
    (sym_parameterized_alias_statement, STATE 11814), (sym_class_definition, STATE 925),
    (sym_trait_definition, STATE 925), (sym_decorated_definition, STATE 925),
    (sym_decorator, STATE 3670), (sym_block, STATE 4872), (sym_pattern, STATE 8086),
    (sym_tuple_pattern, STATE 8101), (sym_list_pattern, STATE 8101),
    (sym_list_splat_pattern, STATE 6819), (sym_as_pattern, STATE 7969),
    (sym_expression, STATE 9883), (sym_primary_expression, STATE 7326),
    (sym_comptime_expression, STATE 7017), (sym_transfer_expression, STATE 7017),
    (sym_not_operator, STATE 7969), (sym_boolean_operator, STATE 7969),
    (sym_binary_operator, STATE 7017), (sym_unary_operator, STATE 7017),
    (sym_comparison_operator, STATE 7969), (sym_lambda, STATE 7969),
    (sym_assignment, STATE 12425), (sym_augmented_assignment, STATE 12425),
    (sym_pattern_list, STATE 8578), (sym_yield, STATE 12425), (sym_attribute, STATE 6836),
    (sym_subscript, STATE 6838), (sym_call, STATE 6845), (sym_mlir_type, STATE 7017),
    (sym_list, STATE 7017), (sym_set, STATE 7017), (sym_tuple, STATE 7017),
    (sym_dictionary, STATE 7017), (sym_struct_literal, STATE 7017),
    (sym_list_comprehension, STATE 7017), (sym_dictionary_comprehension, STATE 7017),
    (sym_set_comprehension, STATE 7017), (sym_generator_expression, STATE 7017),
    (sym_parenthesized_expression, STATE 7017), (sym_conditional_expression, STATE 7969),
    (sym_concatenated_string, STATE 7017), (sym_string, STATE 6751), (sym_await, STATE 7017),
    (aux_sym_module_repeat1, STATE 925), (aux_sym_decorated_definition_repeat1, STATE 3670),
    (sym_identifier, ACTIONS 9), (anon_sym_import, ACTIONS 11), (anon_sym_from, ACTIONS 13),
    (anon_sym_LPAREN, ACTIONS 15), (anon_sym_STAR, ACTIONS 17), (anon_sym_print, ACTIONS 19),
    (anon_sym_comptime, ACTIONS 99), (anon_sym_assert, ACTIONS 23),
    (anon_sym___comptime_assert, ACTIONS 25), (anon_sym_return, ACTIONS 27),
    (anon_sym_del, ACTIONS 29), (anon_sym_raise, ACTIONS 31), (anon_sym_pass, ACTIONS 33),
    (anon_sym_break, ACTIONS 35), (anon_sym_continue, ACTIONS 37),
    (anon_sym___extension, ACTIONS 101), (anon_sym___mlir_region, ACTIONS 103),
    (anon_sym_if, ACTIONS 105), (anon_sym_match, ACTIONS 107), (anon_sym_async, ACTIONS 109),
    (anon_sym_for, ACTIONS 111), (anon_sym_while, ACTIONS 113), (anon_sym_try, ACTIONS 115),
    (anon_sym_with, ACTIONS 117), (anon_sym_def, ACTIONS 119), (anon_sym_fn, ACTIONS 119),
    (anon_sym_LBRACK, ACTIONS 59), (anon_sym_LBRACE, ACTIONS 61), (anon_sym_global, ACTIONS 63),
    (anon_sym_nonlocal, ACTIONS 65), (anon_sym_exec, ACTIONS 67), (anon_sym_type, ACTIONS 69),
    (anon_sym_class, ACTIONS 121), (anon_sym_struct, ACTIONS 121), (anon_sym_mut, ACTIONS 73),
    (anon_sym_out, ACTIONS 73), (anon_sym_trait, ACTIONS 123), (anon_sym_AT, ACTIONS 77),
    (anon_sym_DASH, ACTIONS 79), (anon_sym_PLUS, ACTIONS 79), (anon_sym_ref, ACTIONS 81),
    (anon_sym_var, ACTIONS 81), (anon_sym_not, ACTIONS 83), (anon_sym_TILDE, ACTIONS 79),
    (anon_sym_lambda, ACTIONS 85), (anon_sym_yield, ACTIONS 87), (sym_ellipsis, ACTIONS 89),
    (anon_sym___mlir_type, ACTIONS 91), (sym_integer, ACTIONS 93), (sym_float, ACTIONS 89),
    (anon_sym_await, ACTIONS 95), (sym_true, ACTIONS 93), (sym_false, ACTIONS 93),
    (sym_none, ACTIONS 93), (sym_comment, ACTIONS 3), (sym_line_continuation, ACTIONS 3),
    (sym__dedent, ACTIONS 129), (sym_string_start, ACTIONS 97)]"

definition parse_table_138 :: "(nat \<times> nat) list" where "parse_table_138 = [
    (sym__statement, STATE 925), (sym__simple_statements, STATE 925),
    (sym_import_statement, STATE 11814), (sym_future_import_statement, STATE 11814),
    (sym_import_from_statement, STATE 11814), (sym_print_statement, STATE 11814),
    (sym_assert_statement, STATE 11814), (sym_comptime_assert_statement, STATE 11814),
    (sym_expression_statement, STATE 11814), (sym_tuple_expression, STATE 12425),
    (sym_named_expression, STATE 7969), (sym__named_expression_lhs, STATE 12752),
    (sym_return_statement, STATE 11814), (sym_delete_statement, STATE 11814),
    (sym_raise_statement, STATE 11814), (sym_pass_statement, STATE 11814),
    (sym_break_statement, STATE 11814), (sym_continue_statement, STATE 11814),
    (sym_extension_definition, STATE 925), (sym_mlir_region, STATE 925),
    (sym_comptime_statement, STATE 925), (sym_if_statement, STATE 925),
    (sym_match_statement, STATE 925), (sym_for_statement, STATE 925),
    (sym_while_statement, STATE 925), (sym_try_statement, STATE 925),
    (sym_with_statement, STATE 925), (sym_function_definition, STATE 925),
    (sym_global_statement, STATE 11814), (sym_nonlocal_statement, STATE 11814),
    (sym_exec_statement, STATE 11814), (sym_type_alias_statement, STATE 11814),
    (sym_parameterized_alias_statement, STATE 11814), (sym_class_definition, STATE 925),
    (sym_trait_definition, STATE 925), (sym_decorated_definition, STATE 925),
    (sym_decorator, STATE 3670), (sym_block, STATE 4874), (sym_pattern, STATE 8086),
    (sym_tuple_pattern, STATE 8101), (sym_list_pattern, STATE 8101),
    (sym_list_splat_pattern, STATE 6819), (sym_as_pattern, STATE 7969),
    (sym_expression, STATE 9883), (sym_primary_expression, STATE 7326),
    (sym_comptime_expression, STATE 7017), (sym_transfer_expression, STATE 7017),
    (sym_not_operator, STATE 7969), (sym_boolean_operator, STATE 7969),
    (sym_binary_operator, STATE 7017), (sym_unary_operator, STATE 7017),
    (sym_comparison_operator, STATE 7969), (sym_lambda, STATE 7969),
    (sym_assignment, STATE 12425), (sym_augmented_assignment, STATE 12425),
    (sym_pattern_list, STATE 8578), (sym_yield, STATE 12425), (sym_attribute, STATE 6836),
    (sym_subscript, STATE 6838), (sym_call, STATE 6845), (sym_mlir_type, STATE 7017),
    (sym_list, STATE 7017), (sym_set, STATE 7017), (sym_tuple, STATE 7017),
    (sym_dictionary, STATE 7017), (sym_struct_literal, STATE 7017),
    (sym_list_comprehension, STATE 7017), (sym_dictionary_comprehension, STATE 7017),
    (sym_set_comprehension, STATE 7017), (sym_generator_expression, STATE 7017),
    (sym_parenthesized_expression, STATE 7017), (sym_conditional_expression, STATE 7969),
    (sym_concatenated_string, STATE 7017), (sym_string, STATE 6751), (sym_await, STATE 7017),
    (aux_sym_module_repeat1, STATE 925), (aux_sym_decorated_definition_repeat1, STATE 3670),
    (sym_identifier, ACTIONS 9), (anon_sym_import, ACTIONS 11), (anon_sym_from, ACTIONS 13),
    (anon_sym_LPAREN, ACTIONS 15), (anon_sym_STAR, ACTIONS 17), (anon_sym_print, ACTIONS 19),
    (anon_sym_comptime, ACTIONS 99), (anon_sym_assert, ACTIONS 23),
    (anon_sym___comptime_assert, ACTIONS 25), (anon_sym_return, ACTIONS 27),
    (anon_sym_del, ACTIONS 29), (anon_sym_raise, ACTIONS 31), (anon_sym_pass, ACTIONS 33),
    (anon_sym_break, ACTIONS 35), (anon_sym_continue, ACTIONS 37),
    (anon_sym___extension, ACTIONS 101), (anon_sym___mlir_region, ACTIONS 103),
    (anon_sym_if, ACTIONS 105), (anon_sym_match, ACTIONS 107), (anon_sym_async, ACTIONS 109),
    (anon_sym_for, ACTIONS 111), (anon_sym_while, ACTIONS 113), (anon_sym_try, ACTIONS 115),
    (anon_sym_with, ACTIONS 117), (anon_sym_def, ACTIONS 119), (anon_sym_fn, ACTIONS 119),
    (anon_sym_LBRACK, ACTIONS 59), (anon_sym_LBRACE, ACTIONS 61), (anon_sym_global, ACTIONS 63),
    (anon_sym_nonlocal, ACTIONS 65), (anon_sym_exec, ACTIONS 67), (anon_sym_type, ACTIONS 69),
    (anon_sym_class, ACTIONS 121), (anon_sym_struct, ACTIONS 121), (anon_sym_mut, ACTIONS 73),
    (anon_sym_out, ACTIONS 73), (anon_sym_trait, ACTIONS 123), (anon_sym_AT, ACTIONS 77),
    (anon_sym_DASH, ACTIONS 79), (anon_sym_PLUS, ACTIONS 79), (anon_sym_ref, ACTIONS 81),
    (anon_sym_var, ACTIONS 81), (anon_sym_not, ACTIONS 83), (anon_sym_TILDE, ACTIONS 79),
    (anon_sym_lambda, ACTIONS 85), (anon_sym_yield, ACTIONS 87), (sym_ellipsis, ACTIONS 89),
    (anon_sym___mlir_type, ACTIONS 91), (sym_integer, ACTIONS 93), (sym_float, ACTIONS 89),
    (anon_sym_await, ACTIONS 95), (sym_true, ACTIONS 93), (sym_false, ACTIONS 93),
    (sym_none, ACTIONS 93), (sym_comment, ACTIONS 3), (sym_line_continuation, ACTIONS 3),
    (sym__dedent, ACTIONS 129), (sym_string_start, ACTIONS 97)]"

definition parse_table_139 :: "(nat \<times> nat) list" where "parse_table_139 = [
    (sym__statement, STATE 925), (sym__simple_statements, STATE 925),
    (sym_import_statement, STATE 11814), (sym_future_import_statement, STATE 11814),
    (sym_import_from_statement, STATE 11814), (sym_print_statement, STATE 11814),
    (sym_assert_statement, STATE 11814), (sym_comptime_assert_statement, STATE 11814),
    (sym_expression_statement, STATE 11814), (sym_tuple_expression, STATE 12425),
    (sym_named_expression, STATE 7969), (sym__named_expression_lhs, STATE 12752),
    (sym_return_statement, STATE 11814), (sym_delete_statement, STATE 11814),
    (sym_raise_statement, STATE 11814), (sym_pass_statement, STATE 11814),
    (sym_break_statement, STATE 11814), (sym_continue_statement, STATE 11814),
    (sym_extension_definition, STATE 925), (sym_mlir_region, STATE 925),
    (sym_comptime_statement, STATE 925), (sym_if_statement, STATE 925),
    (sym_match_statement, STATE 925), (sym_for_statement, STATE 925),
    (sym_while_statement, STATE 925), (sym_try_statement, STATE 925),
    (sym_with_statement, STATE 925), (sym_function_definition, STATE 925),
    (sym_global_statement, STATE 11814), (sym_nonlocal_statement, STATE 11814),
    (sym_exec_statement, STATE 11814), (sym_type_alias_statement, STATE 11814),
    (sym_parameterized_alias_statement, STATE 11814), (sym_class_definition, STATE 925),
    (sym_trait_definition, STATE 925), (sym_decorated_definition, STATE 925),
    (sym_decorator, STATE 3670), (sym_block, STATE 4877), (sym_pattern, STATE 8086),
    (sym_tuple_pattern, STATE 8101), (sym_list_pattern, STATE 8101),
    (sym_list_splat_pattern, STATE 6819), (sym_as_pattern, STATE 7969),
    (sym_expression, STATE 9883), (sym_primary_expression, STATE 7326),
    (sym_comptime_expression, STATE 7017), (sym_transfer_expression, STATE 7017),
    (sym_not_operator, STATE 7969), (sym_boolean_operator, STATE 7969),
    (sym_binary_operator, STATE 7017), (sym_unary_operator, STATE 7017),
    (sym_comparison_operator, STATE 7969), (sym_lambda, STATE 7969),
    (sym_assignment, STATE 12425), (sym_augmented_assignment, STATE 12425),
    (sym_pattern_list, STATE 8578), (sym_yield, STATE 12425), (sym_attribute, STATE 6836),
    (sym_subscript, STATE 6838), (sym_call, STATE 6845), (sym_mlir_type, STATE 7017),
    (sym_list, STATE 7017), (sym_set, STATE 7017), (sym_tuple, STATE 7017),
    (sym_dictionary, STATE 7017), (sym_struct_literal, STATE 7017),
    (sym_list_comprehension, STATE 7017), (sym_dictionary_comprehension, STATE 7017),
    (sym_set_comprehension, STATE 7017), (sym_generator_expression, STATE 7017),
    (sym_parenthesized_expression, STATE 7017), (sym_conditional_expression, STATE 7969),
    (sym_concatenated_string, STATE 7017), (sym_string, STATE 6751), (sym_await, STATE 7017),
    (aux_sym_module_repeat1, STATE 925), (aux_sym_decorated_definition_repeat1, STATE 3670),
    (sym_identifier, ACTIONS 9), (anon_sym_import, ACTIONS 11), (anon_sym_from, ACTIONS 13),
    (anon_sym_LPAREN, ACTIONS 15), (anon_sym_STAR, ACTIONS 17), (anon_sym_print, ACTIONS 19),
    (anon_sym_comptime, ACTIONS 99), (anon_sym_assert, ACTIONS 23),
    (anon_sym___comptime_assert, ACTIONS 25), (anon_sym_return, ACTIONS 27),
    (anon_sym_del, ACTIONS 29), (anon_sym_raise, ACTIONS 31), (anon_sym_pass, ACTIONS 33),
    (anon_sym_break, ACTIONS 35), (anon_sym_continue, ACTIONS 37),
    (anon_sym___extension, ACTIONS 101), (anon_sym___mlir_region, ACTIONS 103),
    (anon_sym_if, ACTIONS 105), (anon_sym_match, ACTIONS 107), (anon_sym_async, ACTIONS 109),
    (anon_sym_for, ACTIONS 111), (anon_sym_while, ACTIONS 113), (anon_sym_try, ACTIONS 115),
    (anon_sym_with, ACTIONS 117), (anon_sym_def, ACTIONS 119), (anon_sym_fn, ACTIONS 119),
    (anon_sym_LBRACK, ACTIONS 59), (anon_sym_LBRACE, ACTIONS 61), (anon_sym_global, ACTIONS 63),
    (anon_sym_nonlocal, ACTIONS 65), (anon_sym_exec, ACTIONS 67), (anon_sym_type, ACTIONS 69),
    (anon_sym_class, ACTIONS 121), (anon_sym_struct, ACTIONS 121), (anon_sym_mut, ACTIONS 73),
    (anon_sym_out, ACTIONS 73), (anon_sym_trait, ACTIONS 123), (anon_sym_AT, ACTIONS 77),
    (anon_sym_DASH, ACTIONS 79), (anon_sym_PLUS, ACTIONS 79), (anon_sym_ref, ACTIONS 81),
    (anon_sym_var, ACTIONS 81), (anon_sym_not, ACTIONS 83), (anon_sym_TILDE, ACTIONS 79),
    (anon_sym_lambda, ACTIONS 85), (anon_sym_yield, ACTIONS 87), (sym_ellipsis, ACTIONS 89),
    (anon_sym___mlir_type, ACTIONS 91), (sym_integer, ACTIONS 93), (sym_float, ACTIONS 89),
    (anon_sym_await, ACTIONS 95), (sym_true, ACTIONS 93), (sym_false, ACTIONS 93),
    (sym_none, ACTIONS 93), (sym_comment, ACTIONS 3), (sym_line_continuation, ACTIONS 3),
    (sym__dedent, ACTIONS 129), (sym_string_start, ACTIONS 97)]"

definition parse_table_140 :: "(nat \<times> nat) list" where "parse_table_140 = [
    (sym__statement, STATE 925), (sym__simple_statements, STATE 925),
    (sym_import_statement, STATE 11814), (sym_future_import_statement, STATE 11814),
    (sym_import_from_statement, STATE 11814), (sym_print_statement, STATE 11814),
    (sym_assert_statement, STATE 11814), (sym_comptime_assert_statement, STATE 11814),
    (sym_expression_statement, STATE 11814), (sym_tuple_expression, STATE 12425),
    (sym_named_expression, STATE 7969), (sym__named_expression_lhs, STATE 12752),
    (sym_return_statement, STATE 11814), (sym_delete_statement, STATE 11814),
    (sym_raise_statement, STATE 11814), (sym_pass_statement, STATE 11814),
    (sym_break_statement, STATE 11814), (sym_continue_statement, STATE 11814),
    (sym_extension_definition, STATE 925), (sym_mlir_region, STATE 925),
    (sym_comptime_statement, STATE 925), (sym_if_statement, STATE 925),
    (sym_match_statement, STATE 925), (sym_for_statement, STATE 925),
    (sym_while_statement, STATE 925), (sym_try_statement, STATE 925),
    (sym_with_statement, STATE 925), (sym_function_definition, STATE 925),
    (sym_global_statement, STATE 11814), (sym_nonlocal_statement, STATE 11814),
    (sym_exec_statement, STATE 11814), (sym_type_alias_statement, STATE 11814),
    (sym_parameterized_alias_statement, STATE 11814), (sym_class_definition, STATE 925),
    (sym_trait_definition, STATE 925), (sym_decorated_definition, STATE 925),
    (sym_decorator, STATE 3670), (sym_block, STATE 4882), (sym_pattern, STATE 8086),
    (sym_tuple_pattern, STATE 8101), (sym_list_pattern, STATE 8101),
    (sym_list_splat_pattern, STATE 6819), (sym_as_pattern, STATE 7969),
    (sym_expression, STATE 9883), (sym_primary_expression, STATE 7326),
    (sym_comptime_expression, STATE 7017), (sym_transfer_expression, STATE 7017),
    (sym_not_operator, STATE 7969), (sym_boolean_operator, STATE 7969),
    (sym_binary_operator, STATE 7017), (sym_unary_operator, STATE 7017),
    (sym_comparison_operator, STATE 7969), (sym_lambda, STATE 7969),
    (sym_assignment, STATE 12425), (sym_augmented_assignment, STATE 12425),
    (sym_pattern_list, STATE 8578), (sym_yield, STATE 12425), (sym_attribute, STATE 6836),
    (sym_subscript, STATE 6838), (sym_call, STATE 6845), (sym_mlir_type, STATE 7017),
    (sym_list, STATE 7017), (sym_set, STATE 7017), (sym_tuple, STATE 7017),
    (sym_dictionary, STATE 7017), (sym_struct_literal, STATE 7017),
    (sym_list_comprehension, STATE 7017), (sym_dictionary_comprehension, STATE 7017),
    (sym_set_comprehension, STATE 7017), (sym_generator_expression, STATE 7017),
    (sym_parenthesized_expression, STATE 7017), (sym_conditional_expression, STATE 7969),
    (sym_concatenated_string, STATE 7017), (sym_string, STATE 6751), (sym_await, STATE 7017),
    (aux_sym_module_repeat1, STATE 925), (aux_sym_decorated_definition_repeat1, STATE 3670),
    (sym_identifier, ACTIONS 9), (anon_sym_import, ACTIONS 11), (anon_sym_from, ACTIONS 13),
    (anon_sym_LPAREN, ACTIONS 15), (anon_sym_STAR, ACTIONS 17), (anon_sym_print, ACTIONS 19),
    (anon_sym_comptime, ACTIONS 99), (anon_sym_assert, ACTIONS 23),
    (anon_sym___comptime_assert, ACTIONS 25), (anon_sym_return, ACTIONS 27),
    (anon_sym_del, ACTIONS 29), (anon_sym_raise, ACTIONS 31), (anon_sym_pass, ACTIONS 33),
    (anon_sym_break, ACTIONS 35), (anon_sym_continue, ACTIONS 37),
    (anon_sym___extension, ACTIONS 101), (anon_sym___mlir_region, ACTIONS 103),
    (anon_sym_if, ACTIONS 105), (anon_sym_match, ACTIONS 107), (anon_sym_async, ACTIONS 109),
    (anon_sym_for, ACTIONS 111), (anon_sym_while, ACTIONS 113), (anon_sym_try, ACTIONS 115),
    (anon_sym_with, ACTIONS 117), (anon_sym_def, ACTIONS 119), (anon_sym_fn, ACTIONS 119),
    (anon_sym_LBRACK, ACTIONS 59), (anon_sym_LBRACE, ACTIONS 61), (anon_sym_global, ACTIONS 63),
    (anon_sym_nonlocal, ACTIONS 65), (anon_sym_exec, ACTIONS 67), (anon_sym_type, ACTIONS 69),
    (anon_sym_class, ACTIONS 121), (anon_sym_struct, ACTIONS 121), (anon_sym_mut, ACTIONS 73),
    (anon_sym_out, ACTIONS 73), (anon_sym_trait, ACTIONS 123), (anon_sym_AT, ACTIONS 77),
    (anon_sym_DASH, ACTIONS 79), (anon_sym_PLUS, ACTIONS 79), (anon_sym_ref, ACTIONS 81),
    (anon_sym_var, ACTIONS 81), (anon_sym_not, ACTIONS 83), (anon_sym_TILDE, ACTIONS 79),
    (anon_sym_lambda, ACTIONS 85), (anon_sym_yield, ACTIONS 87), (sym_ellipsis, ACTIONS 89),
    (anon_sym___mlir_type, ACTIONS 91), (sym_integer, ACTIONS 93), (sym_float, ACTIONS 89),
    (anon_sym_await, ACTIONS 95), (sym_true, ACTIONS 93), (sym_false, ACTIONS 93),
    (sym_none, ACTIONS 93), (sym_comment, ACTIONS 3), (sym_line_continuation, ACTIONS 3),
    (sym__dedent, ACTIONS 129), (sym_string_start, ACTIONS 97)]"

definition parse_table_141 :: "(nat \<times> nat) list" where "parse_table_141 = [
    (sym__statement, STATE 925), (sym__simple_statements, STATE 925),
    (sym_import_statement, STATE 11814), (sym_future_import_statement, STATE 11814),
    (sym_import_from_statement, STATE 11814), (sym_print_statement, STATE 11814),
    (sym_assert_statement, STATE 11814), (sym_comptime_assert_statement, STATE 11814),
    (sym_expression_statement, STATE 11814), (sym_tuple_expression, STATE 12425),
    (sym_named_expression, STATE 7969), (sym__named_expression_lhs, STATE 12752),
    (sym_return_statement, STATE 11814), (sym_delete_statement, STATE 11814),
    (sym_raise_statement, STATE 11814), (sym_pass_statement, STATE 11814),
    (sym_break_statement, STATE 11814), (sym_continue_statement, STATE 11814),
    (sym_extension_definition, STATE 925), (sym_mlir_region, STATE 925),
    (sym_comptime_statement, STATE 925), (sym_if_statement, STATE 925),
    (sym_match_statement, STATE 925), (sym_for_statement, STATE 925),
    (sym_while_statement, STATE 925), (sym_try_statement, STATE 925),
    (sym_with_statement, STATE 925), (sym_function_definition, STATE 925),
    (sym_global_statement, STATE 11814), (sym_nonlocal_statement, STATE 11814),
    (sym_exec_statement, STATE 11814), (sym_type_alias_statement, STATE 11814),
    (sym_parameterized_alias_statement, STATE 11814), (sym_class_definition, STATE 925),
    (sym_trait_definition, STATE 925), (sym_decorated_definition, STATE 925),
    (sym_decorator, STATE 3670), (sym_block, STATE 4887), (sym_pattern, STATE 8086),
    (sym_tuple_pattern, STATE 8101), (sym_list_pattern, STATE 8101),
    (sym_list_splat_pattern, STATE 6819), (sym_as_pattern, STATE 7969),
    (sym_expression, STATE 9883), (sym_primary_expression, STATE 7326),
    (sym_comptime_expression, STATE 7017), (sym_transfer_expression, STATE 7017),
    (sym_not_operator, STATE 7969), (sym_boolean_operator, STATE 7969),
    (sym_binary_operator, STATE 7017), (sym_unary_operator, STATE 7017),
    (sym_comparison_operator, STATE 7969), (sym_lambda, STATE 7969),
    (sym_assignment, STATE 12425), (sym_augmented_assignment, STATE 12425),
    (sym_pattern_list, STATE 8578), (sym_yield, STATE 12425), (sym_attribute, STATE 6836),
    (sym_subscript, STATE 6838), (sym_call, STATE 6845), (sym_mlir_type, STATE 7017),
    (sym_list, STATE 7017), (sym_set, STATE 7017), (sym_tuple, STATE 7017),
    (sym_dictionary, STATE 7017), (sym_struct_literal, STATE 7017),
    (sym_list_comprehension, STATE 7017), (sym_dictionary_comprehension, STATE 7017),
    (sym_set_comprehension, STATE 7017), (sym_generator_expression, STATE 7017),
    (sym_parenthesized_expression, STATE 7017), (sym_conditional_expression, STATE 7969),
    (sym_concatenated_string, STATE 7017), (sym_string, STATE 6751), (sym_await, STATE 7017),
    (aux_sym_module_repeat1, STATE 925), (aux_sym_decorated_definition_repeat1, STATE 3670),
    (sym_identifier, ACTIONS 9), (anon_sym_import, ACTIONS 11), (anon_sym_from, ACTIONS 13),
    (anon_sym_LPAREN, ACTIONS 15), (anon_sym_STAR, ACTIONS 17), (anon_sym_print, ACTIONS 19),
    (anon_sym_comptime, ACTIONS 99), (anon_sym_assert, ACTIONS 23),
    (anon_sym___comptime_assert, ACTIONS 25), (anon_sym_return, ACTIONS 27),
    (anon_sym_del, ACTIONS 29), (anon_sym_raise, ACTIONS 31), (anon_sym_pass, ACTIONS 33),
    (anon_sym_break, ACTIONS 35), (anon_sym_continue, ACTIONS 37),
    (anon_sym___extension, ACTIONS 101), (anon_sym___mlir_region, ACTIONS 103),
    (anon_sym_if, ACTIONS 105), (anon_sym_match, ACTIONS 107), (anon_sym_async, ACTIONS 109),
    (anon_sym_for, ACTIONS 111), (anon_sym_while, ACTIONS 113), (anon_sym_try, ACTIONS 115),
    (anon_sym_with, ACTIONS 117), (anon_sym_def, ACTIONS 119), (anon_sym_fn, ACTIONS 119),
    (anon_sym_LBRACK, ACTIONS 59), (anon_sym_LBRACE, ACTIONS 61), (anon_sym_global, ACTIONS 63),
    (anon_sym_nonlocal, ACTIONS 65), (anon_sym_exec, ACTIONS 67), (anon_sym_type, ACTIONS 69),
    (anon_sym_class, ACTIONS 121), (anon_sym_struct, ACTIONS 121), (anon_sym_mut, ACTIONS 73),
    (anon_sym_out, ACTIONS 73), (anon_sym_trait, ACTIONS 123), (anon_sym_AT, ACTIONS 77),
    (anon_sym_DASH, ACTIONS 79), (anon_sym_PLUS, ACTIONS 79), (anon_sym_ref, ACTIONS 81),
    (anon_sym_var, ACTIONS 81), (anon_sym_not, ACTIONS 83), (anon_sym_TILDE, ACTIONS 79),
    (anon_sym_lambda, ACTIONS 85), (anon_sym_yield, ACTIONS 87), (sym_ellipsis, ACTIONS 89),
    (anon_sym___mlir_type, ACTIONS 91), (sym_integer, ACTIONS 93), (sym_float, ACTIONS 89),
    (anon_sym_await, ACTIONS 95), (sym_true, ACTIONS 93), (sym_false, ACTIONS 93),
    (sym_none, ACTIONS 93), (sym_comment, ACTIONS 3), (sym_line_continuation, ACTIONS 3),
    (sym__dedent, ACTIONS 129), (sym_string_start, ACTIONS 97)]"

definition parse_table_142 :: "(nat \<times> nat) list" where "parse_table_142 = [
    (sym__statement, STATE 925), (sym__simple_statements, STATE 925),
    (sym_import_statement, STATE 11814), (sym_future_import_statement, STATE 11814),
    (sym_import_from_statement, STATE 11814), (sym_print_statement, STATE 11814),
    (sym_assert_statement, STATE 11814), (sym_comptime_assert_statement, STATE 11814),
    (sym_expression_statement, STATE 11814), (sym_tuple_expression, STATE 12425),
    (sym_named_expression, STATE 7969), (sym__named_expression_lhs, STATE 12752),
    (sym_return_statement, STATE 11814), (sym_delete_statement, STATE 11814),
    (sym_raise_statement, STATE 11814), (sym_pass_statement, STATE 11814),
    (sym_break_statement, STATE 11814), (sym_continue_statement, STATE 11814),
    (sym_extension_definition, STATE 925), (sym_mlir_region, STATE 925),
    (sym_comptime_statement, STATE 925), (sym_if_statement, STATE 925),
    (sym_match_statement, STATE 925), (sym_for_statement, STATE 925),
    (sym_while_statement, STATE 925), (sym_try_statement, STATE 925),
    (sym_with_statement, STATE 925), (sym_function_definition, STATE 925),
    (sym_global_statement, STATE 11814), (sym_nonlocal_statement, STATE 11814),
    (sym_exec_statement, STATE 11814), (sym_type_alias_statement, STATE 11814),
    (sym_parameterized_alias_statement, STATE 11814), (sym_class_definition, STATE 925),
    (sym_trait_definition, STATE 925), (sym_decorated_definition, STATE 925),
    (sym_decorator, STATE 3670), (sym_block, STATE 4888), (sym_pattern, STATE 8086),
    (sym_tuple_pattern, STATE 8101), (sym_list_pattern, STATE 8101),
    (sym_list_splat_pattern, STATE 6819), (sym_as_pattern, STATE 7969),
    (sym_expression, STATE 9883), (sym_primary_expression, STATE 7326),
    (sym_comptime_expression, STATE 7017), (sym_transfer_expression, STATE 7017),
    (sym_not_operator, STATE 7969), (sym_boolean_operator, STATE 7969),
    (sym_binary_operator, STATE 7017), (sym_unary_operator, STATE 7017),
    (sym_comparison_operator, STATE 7969), (sym_lambda, STATE 7969),
    (sym_assignment, STATE 12425), (sym_augmented_assignment, STATE 12425),
    (sym_pattern_list, STATE 8578), (sym_yield, STATE 12425), (sym_attribute, STATE 6836),
    (sym_subscript, STATE 6838), (sym_call, STATE 6845), (sym_mlir_type, STATE 7017),
    (sym_list, STATE 7017), (sym_set, STATE 7017), (sym_tuple, STATE 7017),
    (sym_dictionary, STATE 7017), (sym_struct_literal, STATE 7017),
    (sym_list_comprehension, STATE 7017), (sym_dictionary_comprehension, STATE 7017),
    (sym_set_comprehension, STATE 7017), (sym_generator_expression, STATE 7017),
    (sym_parenthesized_expression, STATE 7017), (sym_conditional_expression, STATE 7969),
    (sym_concatenated_string, STATE 7017), (sym_string, STATE 6751), (sym_await, STATE 7017),
    (aux_sym_module_repeat1, STATE 925), (aux_sym_decorated_definition_repeat1, STATE 3670),
    (sym_identifier, ACTIONS 9), (anon_sym_import, ACTIONS 11), (anon_sym_from, ACTIONS 13),
    (anon_sym_LPAREN, ACTIONS 15), (anon_sym_STAR, ACTIONS 17), (anon_sym_print, ACTIONS 19),
    (anon_sym_comptime, ACTIONS 99), (anon_sym_assert, ACTIONS 23),
    (anon_sym___comptime_assert, ACTIONS 25), (anon_sym_return, ACTIONS 27),
    (anon_sym_del, ACTIONS 29), (anon_sym_raise, ACTIONS 31), (anon_sym_pass, ACTIONS 33),
    (anon_sym_break, ACTIONS 35), (anon_sym_continue, ACTIONS 37),
    (anon_sym___extension, ACTIONS 101), (anon_sym___mlir_region, ACTIONS 103),
    (anon_sym_if, ACTIONS 105), (anon_sym_match, ACTIONS 107), (anon_sym_async, ACTIONS 109),
    (anon_sym_for, ACTIONS 111), (anon_sym_while, ACTIONS 113), (anon_sym_try, ACTIONS 115),
    (anon_sym_with, ACTIONS 117), (anon_sym_def, ACTIONS 119), (anon_sym_fn, ACTIONS 119),
    (anon_sym_LBRACK, ACTIONS 59), (anon_sym_LBRACE, ACTIONS 61), (anon_sym_global, ACTIONS 63),
    (anon_sym_nonlocal, ACTIONS 65), (anon_sym_exec, ACTIONS 67), (anon_sym_type, ACTIONS 69),
    (anon_sym_class, ACTIONS 121), (anon_sym_struct, ACTIONS 121), (anon_sym_mut, ACTIONS 73),
    (anon_sym_out, ACTIONS 73), (anon_sym_trait, ACTIONS 123), (anon_sym_AT, ACTIONS 77),
    (anon_sym_DASH, ACTIONS 79), (anon_sym_PLUS, ACTIONS 79), (anon_sym_ref, ACTIONS 81),
    (anon_sym_var, ACTIONS 81), (anon_sym_not, ACTIONS 83), (anon_sym_TILDE, ACTIONS 79),
    (anon_sym_lambda, ACTIONS 85), (anon_sym_yield, ACTIONS 87), (sym_ellipsis, ACTIONS 89),
    (anon_sym___mlir_type, ACTIONS 91), (sym_integer, ACTIONS 93), (sym_float, ACTIONS 89),
    (anon_sym_await, ACTIONS 95), (sym_true, ACTIONS 93), (sym_false, ACTIONS 93),
    (sym_none, ACTIONS 93), (sym_comment, ACTIONS 3), (sym_line_continuation, ACTIONS 3),
    (sym__dedent, ACTIONS 129), (sym_string_start, ACTIONS 97)]"

definition parse_table_143 :: "(nat \<times> nat) list" where "parse_table_143 = [
    (sym__statement, STATE 925), (sym__simple_statements, STATE 925),
    (sym_import_statement, STATE 11814), (sym_future_import_statement, STATE 11814),
    (sym_import_from_statement, STATE 11814), (sym_print_statement, STATE 11814),
    (sym_assert_statement, STATE 11814), (sym_comptime_assert_statement, STATE 11814),
    (sym_expression_statement, STATE 11814), (sym_tuple_expression, STATE 12425),
    (sym_named_expression, STATE 7969), (sym__named_expression_lhs, STATE 12752),
    (sym_return_statement, STATE 11814), (sym_delete_statement, STATE 11814),
    (sym_raise_statement, STATE 11814), (sym_pass_statement, STATE 11814),
    (sym_break_statement, STATE 11814), (sym_continue_statement, STATE 11814),
    (sym_extension_definition, STATE 925), (sym_mlir_region, STATE 925),
    (sym_comptime_statement, STATE 925), (sym_if_statement, STATE 925),
    (sym_match_statement, STATE 925), (sym_for_statement, STATE 925),
    (sym_while_statement, STATE 925), (sym_try_statement, STATE 925),
    (sym_with_statement, STATE 925), (sym_function_definition, STATE 925),
    (sym_global_statement, STATE 11814), (sym_nonlocal_statement, STATE 11814),
    (sym_exec_statement, STATE 11814), (sym_type_alias_statement, STATE 11814),
    (sym_parameterized_alias_statement, STATE 11814), (sym_class_definition, STATE 925),
    (sym_trait_definition, STATE 925), (sym_decorated_definition, STATE 925),
    (sym_decorator, STATE 3670), (sym_block, STATE 4891), (sym_pattern, STATE 8086),
    (sym_tuple_pattern, STATE 8101), (sym_list_pattern, STATE 8101),
    (sym_list_splat_pattern, STATE 6819), (sym_as_pattern, STATE 7969),
    (sym_expression, STATE 9883), (sym_primary_expression, STATE 7326),
    (sym_comptime_expression, STATE 7017), (sym_transfer_expression, STATE 7017),
    (sym_not_operator, STATE 7969), (sym_boolean_operator, STATE 7969),
    (sym_binary_operator, STATE 7017), (sym_unary_operator, STATE 7017),
    (sym_comparison_operator, STATE 7969), (sym_lambda, STATE 7969),
    (sym_assignment, STATE 12425), (sym_augmented_assignment, STATE 12425),
    (sym_pattern_list, STATE 8578), (sym_yield, STATE 12425), (sym_attribute, STATE 6836),
    (sym_subscript, STATE 6838), (sym_call, STATE 6845), (sym_mlir_type, STATE 7017),
    (sym_list, STATE 7017), (sym_set, STATE 7017), (sym_tuple, STATE 7017),
    (sym_dictionary, STATE 7017), (sym_struct_literal, STATE 7017),
    (sym_list_comprehension, STATE 7017), (sym_dictionary_comprehension, STATE 7017),
    (sym_set_comprehension, STATE 7017), (sym_generator_expression, STATE 7017),
    (sym_parenthesized_expression, STATE 7017), (sym_conditional_expression, STATE 7969),
    (sym_concatenated_string, STATE 7017), (sym_string, STATE 6751), (sym_await, STATE 7017),
    (aux_sym_module_repeat1, STATE 925), (aux_sym_decorated_definition_repeat1, STATE 3670),
    (sym_identifier, ACTIONS 9), (anon_sym_import, ACTIONS 11), (anon_sym_from, ACTIONS 13),
    (anon_sym_LPAREN, ACTIONS 15), (anon_sym_STAR, ACTIONS 17), (anon_sym_print, ACTIONS 19),
    (anon_sym_comptime, ACTIONS 99), (anon_sym_assert, ACTIONS 23),
    (anon_sym___comptime_assert, ACTIONS 25), (anon_sym_return, ACTIONS 27),
    (anon_sym_del, ACTIONS 29), (anon_sym_raise, ACTIONS 31), (anon_sym_pass, ACTIONS 33),
    (anon_sym_break, ACTIONS 35), (anon_sym_continue, ACTIONS 37),
    (anon_sym___extension, ACTIONS 101), (anon_sym___mlir_region, ACTIONS 103),
    (anon_sym_if, ACTIONS 105), (anon_sym_match, ACTIONS 107), (anon_sym_async, ACTIONS 109),
    (anon_sym_for, ACTIONS 111), (anon_sym_while, ACTIONS 113), (anon_sym_try, ACTIONS 115),
    (anon_sym_with, ACTIONS 117), (anon_sym_def, ACTIONS 119), (anon_sym_fn, ACTIONS 119),
    (anon_sym_LBRACK, ACTIONS 59), (anon_sym_LBRACE, ACTIONS 61), (anon_sym_global, ACTIONS 63),
    (anon_sym_nonlocal, ACTIONS 65), (anon_sym_exec, ACTIONS 67), (anon_sym_type, ACTIONS 69),
    (anon_sym_class, ACTIONS 121), (anon_sym_struct, ACTIONS 121), (anon_sym_mut, ACTIONS 73),
    (anon_sym_out, ACTIONS 73), (anon_sym_trait, ACTIONS 123), (anon_sym_AT, ACTIONS 77),
    (anon_sym_DASH, ACTIONS 79), (anon_sym_PLUS, ACTIONS 79), (anon_sym_ref, ACTIONS 81),
    (anon_sym_var, ACTIONS 81), (anon_sym_not, ACTIONS 83), (anon_sym_TILDE, ACTIONS 79),
    (anon_sym_lambda, ACTIONS 85), (anon_sym_yield, ACTIONS 87), (sym_ellipsis, ACTIONS 89),
    (anon_sym___mlir_type, ACTIONS 91), (sym_integer, ACTIONS 93), (sym_float, ACTIONS 89),
    (anon_sym_await, ACTIONS 95), (sym_true, ACTIONS 93), (sym_false, ACTIONS 93),
    (sym_none, ACTIONS 93), (sym_comment, ACTIONS 3), (sym_line_continuation, ACTIONS 3),
    (sym__dedent, ACTIONS 129), (sym_string_start, ACTIONS 97)]"

definition parse_table_144 :: "(nat \<times> nat) list" where "parse_table_144 = [
    (sym__statement, STATE 925), (sym__simple_statements, STATE 925),
    (sym_import_statement, STATE 11814), (sym_future_import_statement, STATE 11814),
    (sym_import_from_statement, STATE 11814), (sym_print_statement, STATE 11814),
    (sym_assert_statement, STATE 11814), (sym_comptime_assert_statement, STATE 11814),
    (sym_expression_statement, STATE 11814), (sym_tuple_expression, STATE 12425),
    (sym_named_expression, STATE 7969), (sym__named_expression_lhs, STATE 12752),
    (sym_return_statement, STATE 11814), (sym_delete_statement, STATE 11814),
    (sym_raise_statement, STATE 11814), (sym_pass_statement, STATE 11814),
    (sym_break_statement, STATE 11814), (sym_continue_statement, STATE 11814),
    (sym_extension_definition, STATE 925), (sym_mlir_region, STATE 925),
    (sym_comptime_statement, STATE 925), (sym_if_statement, STATE 925),
    (sym_match_statement, STATE 925), (sym_for_statement, STATE 925),
    (sym_while_statement, STATE 925), (sym_try_statement, STATE 925),
    (sym_with_statement, STATE 925), (sym_function_definition, STATE 925),
    (sym_global_statement, STATE 11814), (sym_nonlocal_statement, STATE 11814),
    (sym_exec_statement, STATE 11814), (sym_type_alias_statement, STATE 11814),
    (sym_parameterized_alias_statement, STATE 11814), (sym_class_definition, STATE 925),
    (sym_trait_definition, STATE 925), (sym_decorated_definition, STATE 925),
    (sym_decorator, STATE 3670), (sym_block, STATE 4894), (sym_pattern, STATE 8086),
    (sym_tuple_pattern, STATE 8101), (sym_list_pattern, STATE 8101),
    (sym_list_splat_pattern, STATE 6819), (sym_as_pattern, STATE 7969),
    (sym_expression, STATE 9883), (sym_primary_expression, STATE 7326),
    (sym_comptime_expression, STATE 7017), (sym_transfer_expression, STATE 7017),
    (sym_not_operator, STATE 7969), (sym_boolean_operator, STATE 7969),
    (sym_binary_operator, STATE 7017), (sym_unary_operator, STATE 7017),
    (sym_comparison_operator, STATE 7969), (sym_lambda, STATE 7969),
    (sym_assignment, STATE 12425), (sym_augmented_assignment, STATE 12425),
    (sym_pattern_list, STATE 8578), (sym_yield, STATE 12425), (sym_attribute, STATE 6836),
    (sym_subscript, STATE 6838), (sym_call, STATE 6845), (sym_mlir_type, STATE 7017),
    (sym_list, STATE 7017), (sym_set, STATE 7017), (sym_tuple, STATE 7017),
    (sym_dictionary, STATE 7017), (sym_struct_literal, STATE 7017),
    (sym_list_comprehension, STATE 7017), (sym_dictionary_comprehension, STATE 7017),
    (sym_set_comprehension, STATE 7017), (sym_generator_expression, STATE 7017),
    (sym_parenthesized_expression, STATE 7017), (sym_conditional_expression, STATE 7969),
    (sym_concatenated_string, STATE 7017), (sym_string, STATE 6751), (sym_await, STATE 7017),
    (aux_sym_module_repeat1, STATE 925), (aux_sym_decorated_definition_repeat1, STATE 3670),
    (sym_identifier, ACTIONS 9), (anon_sym_import, ACTIONS 11), (anon_sym_from, ACTIONS 13),
    (anon_sym_LPAREN, ACTIONS 15), (anon_sym_STAR, ACTIONS 17), (anon_sym_print, ACTIONS 19),
    (anon_sym_comptime, ACTIONS 99), (anon_sym_assert, ACTIONS 23),
    (anon_sym___comptime_assert, ACTIONS 25), (anon_sym_return, ACTIONS 27),
    (anon_sym_del, ACTIONS 29), (anon_sym_raise, ACTIONS 31), (anon_sym_pass, ACTIONS 33),
    (anon_sym_break, ACTIONS 35), (anon_sym_continue, ACTIONS 37),
    (anon_sym___extension, ACTIONS 101), (anon_sym___mlir_region, ACTIONS 103),
    (anon_sym_if, ACTIONS 105), (anon_sym_match, ACTIONS 107), (anon_sym_async, ACTIONS 109),
    (anon_sym_for, ACTIONS 111), (anon_sym_while, ACTIONS 113), (anon_sym_try, ACTIONS 115),
    (anon_sym_with, ACTIONS 117), (anon_sym_def, ACTIONS 119), (anon_sym_fn, ACTIONS 119),
    (anon_sym_LBRACK, ACTIONS 59), (anon_sym_LBRACE, ACTIONS 61), (anon_sym_global, ACTIONS 63),
    (anon_sym_nonlocal, ACTIONS 65), (anon_sym_exec, ACTIONS 67), (anon_sym_type, ACTIONS 69),
    (anon_sym_class, ACTIONS 121), (anon_sym_struct, ACTIONS 121), (anon_sym_mut, ACTIONS 73),
    (anon_sym_out, ACTIONS 73), (anon_sym_trait, ACTIONS 123), (anon_sym_AT, ACTIONS 77),
    (anon_sym_DASH, ACTIONS 79), (anon_sym_PLUS, ACTIONS 79), (anon_sym_ref, ACTIONS 81),
    (anon_sym_var, ACTIONS 81), (anon_sym_not, ACTIONS 83), (anon_sym_TILDE, ACTIONS 79),
    (anon_sym_lambda, ACTIONS 85), (anon_sym_yield, ACTIONS 87), (sym_ellipsis, ACTIONS 89),
    (anon_sym___mlir_type, ACTIONS 91), (sym_integer, ACTIONS 93), (sym_float, ACTIONS 89),
    (anon_sym_await, ACTIONS 95), (sym_true, ACTIONS 93), (sym_false, ACTIONS 93),
    (sym_none, ACTIONS 93), (sym_comment, ACTIONS 3), (sym_line_continuation, ACTIONS 3),
    (sym__dedent, ACTIONS 129), (sym_string_start, ACTIONS 97)]"

definition parse_table_145 :: "(nat \<times> nat) list" where "parse_table_145 = [
    (sym__statement, STATE 925), (sym__simple_statements, STATE 925),
    (sym_import_statement, STATE 11814), (sym_future_import_statement, STATE 11814),
    (sym_import_from_statement, STATE 11814), (sym_print_statement, STATE 11814),
    (sym_assert_statement, STATE 11814), (sym_comptime_assert_statement, STATE 11814),
    (sym_expression_statement, STATE 11814), (sym_tuple_expression, STATE 12425),
    (sym_named_expression, STATE 7969), (sym__named_expression_lhs, STATE 12752),
    (sym_return_statement, STATE 11814), (sym_delete_statement, STATE 11814),
    (sym_raise_statement, STATE 11814), (sym_pass_statement, STATE 11814),
    (sym_break_statement, STATE 11814), (sym_continue_statement, STATE 11814),
    (sym_extension_definition, STATE 925), (sym_mlir_region, STATE 925),
    (sym_comptime_statement, STATE 925), (sym_if_statement, STATE 925),
    (sym_match_statement, STATE 925), (sym_for_statement, STATE 925),
    (sym_while_statement, STATE 925), (sym_try_statement, STATE 925),
    (sym_with_statement, STATE 925), (sym_function_definition, STATE 925),
    (sym_global_statement, STATE 11814), (sym_nonlocal_statement, STATE 11814),
    (sym_exec_statement, STATE 11814), (sym_type_alias_statement, STATE 11814),
    (sym_parameterized_alias_statement, STATE 11814), (sym_class_definition, STATE 925),
    (sym_trait_definition, STATE 925), (sym_decorated_definition, STATE 925),
    (sym_decorator, STATE 3670), (sym_block, STATE 4898), (sym_pattern, STATE 8086),
    (sym_tuple_pattern, STATE 8101), (sym_list_pattern, STATE 8101),
    (sym_list_splat_pattern, STATE 6819), (sym_as_pattern, STATE 7969),
    (sym_expression, STATE 9883), (sym_primary_expression, STATE 7326),
    (sym_comptime_expression, STATE 7017), (sym_transfer_expression, STATE 7017),
    (sym_not_operator, STATE 7969), (sym_boolean_operator, STATE 7969),
    (sym_binary_operator, STATE 7017), (sym_unary_operator, STATE 7017),
    (sym_comparison_operator, STATE 7969), (sym_lambda, STATE 7969),
    (sym_assignment, STATE 12425), (sym_augmented_assignment, STATE 12425),
    (sym_pattern_list, STATE 8578), (sym_yield, STATE 12425), (sym_attribute, STATE 6836),
    (sym_subscript, STATE 6838), (sym_call, STATE 6845), (sym_mlir_type, STATE 7017),
    (sym_list, STATE 7017), (sym_set, STATE 7017), (sym_tuple, STATE 7017),
    (sym_dictionary, STATE 7017), (sym_struct_literal, STATE 7017),
    (sym_list_comprehension, STATE 7017), (sym_dictionary_comprehension, STATE 7017),
    (sym_set_comprehension, STATE 7017), (sym_generator_expression, STATE 7017),
    (sym_parenthesized_expression, STATE 7017), (sym_conditional_expression, STATE 7969),
    (sym_concatenated_string, STATE 7017), (sym_string, STATE 6751), (sym_await, STATE 7017),
    (aux_sym_module_repeat1, STATE 925), (aux_sym_decorated_definition_repeat1, STATE 3670),
    (sym_identifier, ACTIONS 9), (anon_sym_import, ACTIONS 11), (anon_sym_from, ACTIONS 13),
    (anon_sym_LPAREN, ACTIONS 15), (anon_sym_STAR, ACTIONS 17), (anon_sym_print, ACTIONS 19),
    (anon_sym_comptime, ACTIONS 99), (anon_sym_assert, ACTIONS 23),
    (anon_sym___comptime_assert, ACTIONS 25), (anon_sym_return, ACTIONS 27),
    (anon_sym_del, ACTIONS 29), (anon_sym_raise, ACTIONS 31), (anon_sym_pass, ACTIONS 33),
    (anon_sym_break, ACTIONS 35), (anon_sym_continue, ACTIONS 37),
    (anon_sym___extension, ACTIONS 101), (anon_sym___mlir_region, ACTIONS 103),
    (anon_sym_if, ACTIONS 105), (anon_sym_match, ACTIONS 107), (anon_sym_async, ACTIONS 109),
    (anon_sym_for, ACTIONS 111), (anon_sym_while, ACTIONS 113), (anon_sym_try, ACTIONS 115),
    (anon_sym_with, ACTIONS 117), (anon_sym_def, ACTIONS 119), (anon_sym_fn, ACTIONS 119),
    (anon_sym_LBRACK, ACTIONS 59), (anon_sym_LBRACE, ACTIONS 61), (anon_sym_global, ACTIONS 63),
    (anon_sym_nonlocal, ACTIONS 65), (anon_sym_exec, ACTIONS 67), (anon_sym_type, ACTIONS 69),
    (anon_sym_class, ACTIONS 121), (anon_sym_struct, ACTIONS 121), (anon_sym_mut, ACTIONS 73),
    (anon_sym_out, ACTIONS 73), (anon_sym_trait, ACTIONS 123), (anon_sym_AT, ACTIONS 77),
    (anon_sym_DASH, ACTIONS 79), (anon_sym_PLUS, ACTIONS 79), (anon_sym_ref, ACTIONS 81),
    (anon_sym_var, ACTIONS 81), (anon_sym_not, ACTIONS 83), (anon_sym_TILDE, ACTIONS 79),
    (anon_sym_lambda, ACTIONS 85), (anon_sym_yield, ACTIONS 87), (sym_ellipsis, ACTIONS 89),
    (anon_sym___mlir_type, ACTIONS 91), (sym_integer, ACTIONS 93), (sym_float, ACTIONS 89),
    (anon_sym_await, ACTIONS 95), (sym_true, ACTIONS 93), (sym_false, ACTIONS 93),
    (sym_none, ACTIONS 93), (sym_comment, ACTIONS 3), (sym_line_continuation, ACTIONS 3),
    (sym__dedent, ACTIONS 129), (sym_string_start, ACTIONS 97)]"

definition parse_table_146 :: "(nat \<times> nat) list" where "parse_table_146 = [
    (sym__statement, STATE 925), (sym__simple_statements, STATE 925),
    (sym_import_statement, STATE 11814), (sym_future_import_statement, STATE 11814),
    (sym_import_from_statement, STATE 11814), (sym_print_statement, STATE 11814),
    (sym_assert_statement, STATE 11814), (sym_comptime_assert_statement, STATE 11814),
    (sym_expression_statement, STATE 11814), (sym_tuple_expression, STATE 12425),
    (sym_named_expression, STATE 7969), (sym__named_expression_lhs, STATE 12752),
    (sym_return_statement, STATE 11814), (sym_delete_statement, STATE 11814),
    (sym_raise_statement, STATE 11814), (sym_pass_statement, STATE 11814),
    (sym_break_statement, STATE 11814), (sym_continue_statement, STATE 11814),
    (sym_extension_definition, STATE 925), (sym_mlir_region, STATE 925),
    (sym_comptime_statement, STATE 925), (sym_if_statement, STATE 925),
    (sym_match_statement, STATE 925), (sym_for_statement, STATE 925),
    (sym_while_statement, STATE 925), (sym_try_statement, STATE 925),
    (sym_with_statement, STATE 925), (sym_function_definition, STATE 925),
    (sym_global_statement, STATE 11814), (sym_nonlocal_statement, STATE 11814),
    (sym_exec_statement, STATE 11814), (sym_type_alias_statement, STATE 11814),
    (sym_parameterized_alias_statement, STATE 11814), (sym_class_definition, STATE 925),
    (sym_trait_definition, STATE 925), (sym_decorated_definition, STATE 925),
    (sym_decorator, STATE 3670), (sym_block, STATE 4908), (sym_pattern, STATE 8086),
    (sym_tuple_pattern, STATE 8101), (sym_list_pattern, STATE 8101),
    (sym_list_splat_pattern, STATE 6819), (sym_as_pattern, STATE 7969),
    (sym_expression, STATE 9883), (sym_primary_expression, STATE 7326),
    (sym_comptime_expression, STATE 7017), (sym_transfer_expression, STATE 7017),
    (sym_not_operator, STATE 7969), (sym_boolean_operator, STATE 7969),
    (sym_binary_operator, STATE 7017), (sym_unary_operator, STATE 7017),
    (sym_comparison_operator, STATE 7969), (sym_lambda, STATE 7969),
    (sym_assignment, STATE 12425), (sym_augmented_assignment, STATE 12425),
    (sym_pattern_list, STATE 8578), (sym_yield, STATE 12425), (sym_attribute, STATE 6836),
    (sym_subscript, STATE 6838), (sym_call, STATE 6845), (sym_mlir_type, STATE 7017),
    (sym_list, STATE 7017), (sym_set, STATE 7017), (sym_tuple, STATE 7017),
    (sym_dictionary, STATE 7017), (sym_struct_literal, STATE 7017),
    (sym_list_comprehension, STATE 7017), (sym_dictionary_comprehension, STATE 7017),
    (sym_set_comprehension, STATE 7017), (sym_generator_expression, STATE 7017),
    (sym_parenthesized_expression, STATE 7017), (sym_conditional_expression, STATE 7969),
    (sym_concatenated_string, STATE 7017), (sym_string, STATE 6751), (sym_await, STATE 7017),
    (aux_sym_module_repeat1, STATE 925), (aux_sym_decorated_definition_repeat1, STATE 3670),
    (sym_identifier, ACTIONS 9), (anon_sym_import, ACTIONS 11), (anon_sym_from, ACTIONS 13),
    (anon_sym_LPAREN, ACTIONS 15), (anon_sym_STAR, ACTIONS 17), (anon_sym_print, ACTIONS 19),
    (anon_sym_comptime, ACTIONS 99), (anon_sym_assert, ACTIONS 23),
    (anon_sym___comptime_assert, ACTIONS 25), (anon_sym_return, ACTIONS 27),
    (anon_sym_del, ACTIONS 29), (anon_sym_raise, ACTIONS 31), (anon_sym_pass, ACTIONS 33),
    (anon_sym_break, ACTIONS 35), (anon_sym_continue, ACTIONS 37),
    (anon_sym___extension, ACTIONS 101), (anon_sym___mlir_region, ACTIONS 103),
    (anon_sym_if, ACTIONS 105), (anon_sym_match, ACTIONS 107), (anon_sym_async, ACTIONS 109),
    (anon_sym_for, ACTIONS 111), (anon_sym_while, ACTIONS 113), (anon_sym_try, ACTIONS 115),
    (anon_sym_with, ACTIONS 117), (anon_sym_def, ACTIONS 119), (anon_sym_fn, ACTIONS 119),
    (anon_sym_LBRACK, ACTIONS 59), (anon_sym_LBRACE, ACTIONS 61), (anon_sym_global, ACTIONS 63),
    (anon_sym_nonlocal, ACTIONS 65), (anon_sym_exec, ACTIONS 67), (anon_sym_type, ACTIONS 69),
    (anon_sym_class, ACTIONS 121), (anon_sym_struct, ACTIONS 121), (anon_sym_mut, ACTIONS 73),
    (anon_sym_out, ACTIONS 73), (anon_sym_trait, ACTIONS 123), (anon_sym_AT, ACTIONS 77),
    (anon_sym_DASH, ACTIONS 79), (anon_sym_PLUS, ACTIONS 79), (anon_sym_ref, ACTIONS 81),
    (anon_sym_var, ACTIONS 81), (anon_sym_not, ACTIONS 83), (anon_sym_TILDE, ACTIONS 79),
    (anon_sym_lambda, ACTIONS 85), (anon_sym_yield, ACTIONS 87), (sym_ellipsis, ACTIONS 89),
    (anon_sym___mlir_type, ACTIONS 91), (sym_integer, ACTIONS 93), (sym_float, ACTIONS 89),
    (anon_sym_await, ACTIONS 95), (sym_true, ACTIONS 93), (sym_false, ACTIONS 93),
    (sym_none, ACTIONS 93), (sym_comment, ACTIONS 3), (sym_line_continuation, ACTIONS 3),
    (sym__dedent, ACTIONS 129), (sym_string_start, ACTIONS 97)]"

definition parse_table_147 :: "(nat \<times> nat) list" where "parse_table_147 = [
    (sym__statement, STATE 925), (sym__simple_statements, STATE 925),
    (sym_import_statement, STATE 11814), (sym_future_import_statement, STATE 11814),
    (sym_import_from_statement, STATE 11814), (sym_print_statement, STATE 11814),
    (sym_assert_statement, STATE 11814), (sym_comptime_assert_statement, STATE 11814),
    (sym_expression_statement, STATE 11814), (sym_tuple_expression, STATE 12425),
    (sym_named_expression, STATE 7969), (sym__named_expression_lhs, STATE 12752),
    (sym_return_statement, STATE 11814), (sym_delete_statement, STATE 11814),
    (sym_raise_statement, STATE 11814), (sym_pass_statement, STATE 11814),
    (sym_break_statement, STATE 11814), (sym_continue_statement, STATE 11814),
    (sym_extension_definition, STATE 925), (sym_mlir_region, STATE 925),
    (sym_comptime_statement, STATE 925), (sym_if_statement, STATE 925),
    (sym_match_statement, STATE 925), (sym_for_statement, STATE 925),
    (sym_while_statement, STATE 925), (sym_try_statement, STATE 925),
    (sym_with_statement, STATE 925), (sym_function_definition, STATE 925),
    (sym_global_statement, STATE 11814), (sym_nonlocal_statement, STATE 11814),
    (sym_exec_statement, STATE 11814), (sym_type_alias_statement, STATE 11814),
    (sym_parameterized_alias_statement, STATE 11814), (sym_class_definition, STATE 925),
    (sym_trait_definition, STATE 925), (sym_decorated_definition, STATE 925),
    (sym_decorator, STATE 3670), (sym_block, STATE 4914), (sym_pattern, STATE 8086),
    (sym_tuple_pattern, STATE 8101), (sym_list_pattern, STATE 8101),
    (sym_list_splat_pattern, STATE 6819), (sym_as_pattern, STATE 7969),
    (sym_expression, STATE 9883), (sym_primary_expression, STATE 7326),
    (sym_comptime_expression, STATE 7017), (sym_transfer_expression, STATE 7017),
    (sym_not_operator, STATE 7969), (sym_boolean_operator, STATE 7969),
    (sym_binary_operator, STATE 7017), (sym_unary_operator, STATE 7017),
    (sym_comparison_operator, STATE 7969), (sym_lambda, STATE 7969),
    (sym_assignment, STATE 12425), (sym_augmented_assignment, STATE 12425),
    (sym_pattern_list, STATE 8578), (sym_yield, STATE 12425), (sym_attribute, STATE 6836),
    (sym_subscript, STATE 6838), (sym_call, STATE 6845), (sym_mlir_type, STATE 7017),
    (sym_list, STATE 7017), (sym_set, STATE 7017), (sym_tuple, STATE 7017),
    (sym_dictionary, STATE 7017), (sym_struct_literal, STATE 7017),
    (sym_list_comprehension, STATE 7017), (sym_dictionary_comprehension, STATE 7017),
    (sym_set_comprehension, STATE 7017), (sym_generator_expression, STATE 7017),
    (sym_parenthesized_expression, STATE 7017), (sym_conditional_expression, STATE 7969),
    (sym_concatenated_string, STATE 7017), (sym_string, STATE 6751), (sym_await, STATE 7017),
    (aux_sym_module_repeat1, STATE 925), (aux_sym_decorated_definition_repeat1, STATE 3670),
    (sym_identifier, ACTIONS 9), (anon_sym_import, ACTIONS 11), (anon_sym_from, ACTIONS 13),
    (anon_sym_LPAREN, ACTIONS 15), (anon_sym_STAR, ACTIONS 17), (anon_sym_print, ACTIONS 19),
    (anon_sym_comptime, ACTIONS 99), (anon_sym_assert, ACTIONS 23),
    (anon_sym___comptime_assert, ACTIONS 25), (anon_sym_return, ACTIONS 27),
    (anon_sym_del, ACTIONS 29), (anon_sym_raise, ACTIONS 31), (anon_sym_pass, ACTIONS 33),
    (anon_sym_break, ACTIONS 35), (anon_sym_continue, ACTIONS 37),
    (anon_sym___extension, ACTIONS 101), (anon_sym___mlir_region, ACTIONS 103),
    (anon_sym_if, ACTIONS 105), (anon_sym_match, ACTIONS 107), (anon_sym_async, ACTIONS 109),
    (anon_sym_for, ACTIONS 111), (anon_sym_while, ACTIONS 113), (anon_sym_try, ACTIONS 115),
    (anon_sym_with, ACTIONS 117), (anon_sym_def, ACTIONS 119), (anon_sym_fn, ACTIONS 119),
    (anon_sym_LBRACK, ACTIONS 59), (anon_sym_LBRACE, ACTIONS 61), (anon_sym_global, ACTIONS 63),
    (anon_sym_nonlocal, ACTIONS 65), (anon_sym_exec, ACTIONS 67), (anon_sym_type, ACTIONS 69),
    (anon_sym_class, ACTIONS 121), (anon_sym_struct, ACTIONS 121), (anon_sym_mut, ACTIONS 73),
    (anon_sym_out, ACTIONS 73), (anon_sym_trait, ACTIONS 123), (anon_sym_AT, ACTIONS 77),
    (anon_sym_DASH, ACTIONS 79), (anon_sym_PLUS, ACTIONS 79), (anon_sym_ref, ACTIONS 81),
    (anon_sym_var, ACTIONS 81), (anon_sym_not, ACTIONS 83), (anon_sym_TILDE, ACTIONS 79),
    (anon_sym_lambda, ACTIONS 85), (anon_sym_yield, ACTIONS 87), (sym_ellipsis, ACTIONS 89),
    (anon_sym___mlir_type, ACTIONS 91), (sym_integer, ACTIONS 93), (sym_float, ACTIONS 89),
    (anon_sym_await, ACTIONS 95), (sym_true, ACTIONS 93), (sym_false, ACTIONS 93),
    (sym_none, ACTIONS 93), (sym_comment, ACTIONS 3), (sym_line_continuation, ACTIONS 3),
    (sym__dedent, ACTIONS 129), (sym_string_start, ACTIONS 97)]"

definition parse_table_148 :: "(nat \<times> nat) list" where "parse_table_148 = [
    (sym__statement, STATE 925), (sym__simple_statements, STATE 925),
    (sym_import_statement, STATE 11814), (sym_future_import_statement, STATE 11814),
    (sym_import_from_statement, STATE 11814), (sym_print_statement, STATE 11814),
    (sym_assert_statement, STATE 11814), (sym_comptime_assert_statement, STATE 11814),
    (sym_expression_statement, STATE 11814), (sym_tuple_expression, STATE 12425),
    (sym_named_expression, STATE 7969), (sym__named_expression_lhs, STATE 12752),
    (sym_return_statement, STATE 11814), (sym_delete_statement, STATE 11814),
    (sym_raise_statement, STATE 11814), (sym_pass_statement, STATE 11814),
    (sym_break_statement, STATE 11814), (sym_continue_statement, STATE 11814),
    (sym_extension_definition, STATE 925), (sym_mlir_region, STATE 925),
    (sym_comptime_statement, STATE 925), (sym_if_statement, STATE 925),
    (sym_match_statement, STATE 925), (sym_for_statement, STATE 925),
    (sym_while_statement, STATE 925), (sym_try_statement, STATE 925),
    (sym_with_statement, STATE 925), (sym_function_definition, STATE 925),
    (sym_global_statement, STATE 11814), (sym_nonlocal_statement, STATE 11814),
    (sym_exec_statement, STATE 11814), (sym_type_alias_statement, STATE 11814),
    (sym_parameterized_alias_statement, STATE 11814), (sym_class_definition, STATE 925),
    (sym_trait_definition, STATE 925), (sym_decorated_definition, STATE 925),
    (sym_decorator, STATE 3670), (sym_block, STATE 4916), (sym_pattern, STATE 8086),
    (sym_tuple_pattern, STATE 8101), (sym_list_pattern, STATE 8101),
    (sym_list_splat_pattern, STATE 6819), (sym_as_pattern, STATE 7969),
    (sym_expression, STATE 9883), (sym_primary_expression, STATE 7326),
    (sym_comptime_expression, STATE 7017), (sym_transfer_expression, STATE 7017),
    (sym_not_operator, STATE 7969), (sym_boolean_operator, STATE 7969),
    (sym_binary_operator, STATE 7017), (sym_unary_operator, STATE 7017),
    (sym_comparison_operator, STATE 7969), (sym_lambda, STATE 7969),
    (sym_assignment, STATE 12425), (sym_augmented_assignment, STATE 12425),
    (sym_pattern_list, STATE 8578), (sym_yield, STATE 12425), (sym_attribute, STATE 6836),
    (sym_subscript, STATE 6838), (sym_call, STATE 6845), (sym_mlir_type, STATE 7017),
    (sym_list, STATE 7017), (sym_set, STATE 7017), (sym_tuple, STATE 7017),
    (sym_dictionary, STATE 7017), (sym_struct_literal, STATE 7017),
    (sym_list_comprehension, STATE 7017), (sym_dictionary_comprehension, STATE 7017),
    (sym_set_comprehension, STATE 7017), (sym_generator_expression, STATE 7017),
    (sym_parenthesized_expression, STATE 7017), (sym_conditional_expression, STATE 7969),
    (sym_concatenated_string, STATE 7017), (sym_string, STATE 6751), (sym_await, STATE 7017),
    (aux_sym_module_repeat1, STATE 925), (aux_sym_decorated_definition_repeat1, STATE 3670),
    (sym_identifier, ACTIONS 9), (anon_sym_import, ACTIONS 11), (anon_sym_from, ACTIONS 13),
    (anon_sym_LPAREN, ACTIONS 15), (anon_sym_STAR, ACTIONS 17), (anon_sym_print, ACTIONS 19),
    (anon_sym_comptime, ACTIONS 99), (anon_sym_assert, ACTIONS 23),
    (anon_sym___comptime_assert, ACTIONS 25), (anon_sym_return, ACTIONS 27),
    (anon_sym_del, ACTIONS 29), (anon_sym_raise, ACTIONS 31), (anon_sym_pass, ACTIONS 33),
    (anon_sym_break, ACTIONS 35), (anon_sym_continue, ACTIONS 37),
    (anon_sym___extension, ACTIONS 101), (anon_sym___mlir_region, ACTIONS 103),
    (anon_sym_if, ACTIONS 105), (anon_sym_match, ACTIONS 107), (anon_sym_async, ACTIONS 109),
    (anon_sym_for, ACTIONS 111), (anon_sym_while, ACTIONS 113), (anon_sym_try, ACTIONS 115),
    (anon_sym_with, ACTIONS 117), (anon_sym_def, ACTIONS 119), (anon_sym_fn, ACTIONS 119),
    (anon_sym_LBRACK, ACTIONS 59), (anon_sym_LBRACE, ACTIONS 61), (anon_sym_global, ACTIONS 63),
    (anon_sym_nonlocal, ACTIONS 65), (anon_sym_exec, ACTIONS 67), (anon_sym_type, ACTIONS 69),
    (anon_sym_class, ACTIONS 121), (anon_sym_struct, ACTIONS 121), (anon_sym_mut, ACTIONS 73),
    (anon_sym_out, ACTIONS 73), (anon_sym_trait, ACTIONS 123), (anon_sym_AT, ACTIONS 77),
    (anon_sym_DASH, ACTIONS 79), (anon_sym_PLUS, ACTIONS 79), (anon_sym_ref, ACTIONS 81),
    (anon_sym_var, ACTIONS 81), (anon_sym_not, ACTIONS 83), (anon_sym_TILDE, ACTIONS 79),
    (anon_sym_lambda, ACTIONS 85), (anon_sym_yield, ACTIONS 87), (sym_ellipsis, ACTIONS 89),
    (anon_sym___mlir_type, ACTIONS 91), (sym_integer, ACTIONS 93), (sym_float, ACTIONS 89),
    (anon_sym_await, ACTIONS 95), (sym_true, ACTIONS 93), (sym_false, ACTIONS 93),
    (sym_none, ACTIONS 93), (sym_comment, ACTIONS 3), (sym_line_continuation, ACTIONS 3),
    (sym__dedent, ACTIONS 129), (sym_string_start, ACTIONS 97)]"

definition parse_table_149 :: "(nat \<times> nat) list" where "parse_table_149 = [
    (sym__statement, STATE 925), (sym__simple_statements, STATE 925),
    (sym_import_statement, STATE 11814), (sym_future_import_statement, STATE 11814),
    (sym_import_from_statement, STATE 11814), (sym_print_statement, STATE 11814),
    (sym_assert_statement, STATE 11814), (sym_comptime_assert_statement, STATE 11814),
    (sym_expression_statement, STATE 11814), (sym_tuple_expression, STATE 12425),
    (sym_named_expression, STATE 7969), (sym__named_expression_lhs, STATE 12752),
    (sym_return_statement, STATE 11814), (sym_delete_statement, STATE 11814),
    (sym_raise_statement, STATE 11814), (sym_pass_statement, STATE 11814),
    (sym_break_statement, STATE 11814), (sym_continue_statement, STATE 11814),
    (sym_extension_definition, STATE 925), (sym_mlir_region, STATE 925),
    (sym_comptime_statement, STATE 925), (sym_if_statement, STATE 925),
    (sym_match_statement, STATE 925), (sym_for_statement, STATE 925),
    (sym_while_statement, STATE 925), (sym_try_statement, STATE 925),
    (sym_with_statement, STATE 925), (sym_function_definition, STATE 925),
    (sym_global_statement, STATE 11814), (sym_nonlocal_statement, STATE 11814),
    (sym_exec_statement, STATE 11814), (sym_type_alias_statement, STATE 11814),
    (sym_parameterized_alias_statement, STATE 11814), (sym_class_definition, STATE 925),
    (sym_trait_definition, STATE 925), (sym_decorated_definition, STATE 925),
    (sym_decorator, STATE 3670), (sym_block, STATE 4920), (sym_pattern, STATE 8086),
    (sym_tuple_pattern, STATE 8101), (sym_list_pattern, STATE 8101),
    (sym_list_splat_pattern, STATE 6819), (sym_as_pattern, STATE 7969),
    (sym_expression, STATE 9883), (sym_primary_expression, STATE 7326),
    (sym_comptime_expression, STATE 7017), (sym_transfer_expression, STATE 7017),
    (sym_not_operator, STATE 7969), (sym_boolean_operator, STATE 7969),
    (sym_binary_operator, STATE 7017), (sym_unary_operator, STATE 7017),
    (sym_comparison_operator, STATE 7969), (sym_lambda, STATE 7969),
    (sym_assignment, STATE 12425), (sym_augmented_assignment, STATE 12425),
    (sym_pattern_list, STATE 8578), (sym_yield, STATE 12425), (sym_attribute, STATE 6836),
    (sym_subscript, STATE 6838), (sym_call, STATE 6845), (sym_mlir_type, STATE 7017),
    (sym_list, STATE 7017), (sym_set, STATE 7017), (sym_tuple, STATE 7017),
    (sym_dictionary, STATE 7017), (sym_struct_literal, STATE 7017),
    (sym_list_comprehension, STATE 7017), (sym_dictionary_comprehension, STATE 7017),
    (sym_set_comprehension, STATE 7017), (sym_generator_expression, STATE 7017),
    (sym_parenthesized_expression, STATE 7017), (sym_conditional_expression, STATE 7969),
    (sym_concatenated_string, STATE 7017), (sym_string, STATE 6751), (sym_await, STATE 7017),
    (aux_sym_module_repeat1, STATE 925), (aux_sym_decorated_definition_repeat1, STATE 3670),
    (sym_identifier, ACTIONS 9), (anon_sym_import, ACTIONS 11), (anon_sym_from, ACTIONS 13),
    (anon_sym_LPAREN, ACTIONS 15), (anon_sym_STAR, ACTIONS 17), (anon_sym_print, ACTIONS 19),
    (anon_sym_comptime, ACTIONS 99), (anon_sym_assert, ACTIONS 23),
    (anon_sym___comptime_assert, ACTIONS 25), (anon_sym_return, ACTIONS 27),
    (anon_sym_del, ACTIONS 29), (anon_sym_raise, ACTIONS 31), (anon_sym_pass, ACTIONS 33),
    (anon_sym_break, ACTIONS 35), (anon_sym_continue, ACTIONS 37),
    (anon_sym___extension, ACTIONS 101), (anon_sym___mlir_region, ACTIONS 103),
    (anon_sym_if, ACTIONS 105), (anon_sym_match, ACTIONS 107), (anon_sym_async, ACTIONS 109),
    (anon_sym_for, ACTIONS 111), (anon_sym_while, ACTIONS 113), (anon_sym_try, ACTIONS 115),
    (anon_sym_with, ACTIONS 117), (anon_sym_def, ACTIONS 119), (anon_sym_fn, ACTIONS 119),
    (anon_sym_LBRACK, ACTIONS 59), (anon_sym_LBRACE, ACTIONS 61), (anon_sym_global, ACTIONS 63),
    (anon_sym_nonlocal, ACTIONS 65), (anon_sym_exec, ACTIONS 67), (anon_sym_type, ACTIONS 69),
    (anon_sym_class, ACTIONS 121), (anon_sym_struct, ACTIONS 121), (anon_sym_mut, ACTIONS 73),
    (anon_sym_out, ACTIONS 73), (anon_sym_trait, ACTIONS 123), (anon_sym_AT, ACTIONS 77),
    (anon_sym_DASH, ACTIONS 79), (anon_sym_PLUS, ACTIONS 79), (anon_sym_ref, ACTIONS 81),
    (anon_sym_var, ACTIONS 81), (anon_sym_not, ACTIONS 83), (anon_sym_TILDE, ACTIONS 79),
    (anon_sym_lambda, ACTIONS 85), (anon_sym_yield, ACTIONS 87), (sym_ellipsis, ACTIONS 89),
    (anon_sym___mlir_type, ACTIONS 91), (sym_integer, ACTIONS 93), (sym_float, ACTIONS 89),
    (anon_sym_await, ACTIONS 95), (sym_true, ACTIONS 93), (sym_false, ACTIONS 93),
    (sym_none, ACTIONS 93), (sym_comment, ACTIONS 3), (sym_line_continuation, ACTIONS 3),
    (sym__dedent, ACTIONS 129), (sym_string_start, ACTIONS 97)]"

end
