(* ===== verification/Mojo_Parse_Rows_1.thy ===== *)
theory Mojo_Parse_Rows_1
  imports Mojo_Grammar Mojo_Table_Macros
begin

text \<open>
  The rows of \<open>ts_parse_table\<close> (\<^verbatim>\<open>grammars/tree-sitter-mojo/src/parser.c\<close>) for the parse states from
  150 to 299: for a symbol, the group of actions in \<open>ts_parse_actions\<close> for a token and the next state
  for a nonterminal. Definitions only, one for each state.
\<close>

section \<open>Rows\<close>

definition parse_table_150 :: "(nat \<times> nat) list" where "parse_table_150 = [
    (sym__statement, STATE 925), (sym__simple_statements, STATE 925),
    (sym_import_statement, STATE 11814), (sym_future_import_statement, STATE 11814),
    (sym_import_from_statement, STATE 11814), (sym_print_statement, STATE 11814),
    (sym_assert_statement, STATE 11814), (sym_comptime_assert_statement, STATE 11814),
    (sym_expression_statement, STATE 11814), (sym_tuple_expression, STATE 12425),
    (sym_named_expression, STATE 7969), (sym__named_expression_lhs, STATE 12752),
    (sym_return_statement, STATE 11814), (sym_delete_statement, STATE 11814),
    (sym_raise_statement, STATE 11814), (sym_pass_statement, STATE 11814),
    (sym_break_statement, STATE 11814), (sym_continue_statement, STATE 11814),
    (sym_extension_definition, STATE 925), (sym_mlir_region, STATE 925),
    (sym_comptime_statement, STATE 925), (sym_if_statement, STATE 925),
    (sym_match_statement, STATE 925), (sym_for_statement, STATE 925),
    (sym_while_statement, STATE 925), (sym_try_statement, STATE 925),
    (sym_with_statement, STATE 925), (sym_function_definition, STATE 925),
    (sym_global_statement, STATE 11814), (sym_nonlocal_statement, STATE 11814),
    (sym_exec_statement, STATE 11814), (sym_type_alias_statement, STATE 11814),
    (sym_parameterized_alias_statement, STATE 11814), (sym_class_definition, STATE 925),
    (sym_trait_definition, STATE 925), (sym_decorated_definition, STATE 925),
    (sym_decorator, STATE 3670), (sym_block, STATE 4926), (sym_pattern, STATE 8086),
    (sym_tuple_pattern, STATE 8101), (sym_list_pattern, STATE 8101),
    (sym_list_splat_pattern, STATE 6819), (sym_as_pattern, STATE 7969),
    (sym_expression, STATE 9883), (sym_primary_expression, STATE 7326),
    (sym_comptime_expression, STATE 7017), (sym_transfer_expression, STATE 7017),
    (sym_not_operator, STATE 7969), (sym_boolean_operator, STATE 7969),
    (sym_binary_operator, STATE 7017), (sym_unary_operator, STATE 7017),
    (sym_comparison_operator, STATE 7969), (sym_lambda, STATE 7969),
    (sym_assignment, STATE 12425), (sym_augmented_assignment, STATE 12425),
    (sym_pattern_list, STATE 8578), (sym_yield, STATE 12425), (sym_attribute, STATE 6836),
    (sym_subscript, STATE 6838), (sym_call, STATE 6845), (sym_mlir_type, STATE 7017),
    (sym_list, STATE 7017), (sym_set, STATE 7017), (sym_tuple, STATE 7017),
    (sym_dictionary, STATE 7017), (sym_struct_literal, STATE 7017),
    (sym_list_comprehension, STATE 7017), (sym_dictionary_comprehension, STATE 7017),
    (sym_set_comprehension, STATE 7017), (sym_generator_expression, STATE 7017),
    (sym_parenthesized_expression, STATE 7017), (sym_conditional_expression, STATE 7969),
    (sym_concatenated_string, STATE 7017), (sym_string, STATE 6751), (sym_await, STATE 7017),
    (aux_sym_module_repeat1, STATE 925), (aux_sym_decorated_definition_repeat1, STATE 3670),
    (sym_identifier, ACTIONS 9), (anon_sym_import, ACTIONS 11), (anon_sym_from, ACTIONS 13),
    (anon_sym_LPAREN, ACTIONS 15), (anon_sym_STAR, ACTIONS 17), (anon_sym_print, ACTIONS 19),
    (anon_sym_comptime, ACTIONS 99), (anon_sym_assert, ACTIONS 23),
    (anon_sym___comptime_assert, ACTIONS 25), (anon_sym_return, ACTIONS 27),
    (anon_sym_del, ACTIONS 29), (anon_sym_raise, ACTIONS 31), (anon_sym_pass, ACTIONS 33),
    (anon_sym_break, ACTIONS 35), (anon_sym_continue, ACTIONS 37),
    (anon_sym___extension, ACTIONS 101), (anon_sym___mlir_region, ACTIONS 103),
    (anon_sym_if, ACTIONS 105), (anon_sym_match, ACTIONS 107), (anon_sym_async, ACTIONS 109),
    (anon_sym_for, ACTIONS 111), (anon_sym_while, ACTIONS 113), (anon_sym_try, ACTIONS 115),
    (anon_sym_with, ACTIONS 117), (anon_sym_def, ACTIONS 119), (anon_sym_fn, ACTIONS 119),
    (anon_sym_LBRACK, ACTIONS 59), (anon_sym_LBRACE, ACTIONS 61), (anon_sym_global, ACTIONS 63),
    (anon_sym_nonlocal, ACTIONS 65), (anon_sym_exec, ACTIONS 67), (anon_sym_type, ACTIONS 69),
    (anon_sym_class, ACTIONS 121), (anon_sym_struct, ACTIONS 121), (anon_sym_mut, ACTIONS 73),
    (anon_sym_out, ACTIONS 73), (anon_sym_trait, ACTIONS 123), (anon_sym_AT, ACTIONS 77),
    (anon_sym_DASH, ACTIONS 79), (anon_sym_PLUS, ACTIONS 79), (anon_sym_ref, ACTIONS 81),
    (anon_sym_var, ACTIONS 81), (anon_sym_not, ACTIONS 83), (anon_sym_TILDE, ACTIONS 79),
    (anon_sym_lambda, ACTIONS 85), (anon_sym_yield, ACTIONS 87), (sym_ellipsis, ACTIONS 89),
    (anon_sym___mlir_type, ACTIONS 91), (sym_integer, ACTIONS 93), (sym_float, ACTIONS 89),
    (anon_sym_await, ACTIONS 95), (sym_true, ACTIONS 93), (sym_false, ACTIONS 93),
    (sym_none, ACTIONS 93), (sym_comment, ACTIONS 3), (sym_line_continuation, ACTIONS 3),
    (sym__dedent, ACTIONS 129), (sym_string_start, ACTIONS 97)]"

definition parse_table_151 :: "(nat \<times> nat) list" where "parse_table_151 = [
    (sym__statement, STATE 925), (sym__simple_statements, STATE 925),
    (sym_import_statement, STATE 11814), (sym_future_import_statement, STATE 11814),
    (sym_import_from_statement, STATE 11814), (sym_print_statement, STATE 11814),
    (sym_assert_statement, STATE 11814), (sym_comptime_assert_statement, STATE 11814),
    (sym_expression_statement, STATE 11814), (sym_tuple_expression, STATE 12425),
    (sym_named_expression, STATE 7969), (sym__named_expression_lhs, STATE 12752),
    (sym_return_statement, STATE 11814), (sym_delete_statement, STATE 11814),
    (sym_raise_statement, STATE 11814), (sym_pass_statement, STATE 11814),
    (sym_break_statement, STATE 11814), (sym_continue_statement, STATE 11814),
    (sym_extension_definition, STATE 925), (sym_mlir_region, STATE 925),
    (sym_comptime_statement, STATE 925), (sym_if_statement, STATE 925),
    (sym_match_statement, STATE 925), (sym_for_statement, STATE 925),
    (sym_while_statement, STATE 925), (sym_try_statement, STATE 925),
    (sym_with_statement, STATE 925), (sym_function_definition, STATE 925),
    (sym_global_statement, STATE 11814), (sym_nonlocal_statement, STATE 11814),
    (sym_exec_statement, STATE 11814), (sym_type_alias_statement, STATE 11814),
    (sym_parameterized_alias_statement, STATE 11814), (sym_class_definition, STATE 925),
    (sym_trait_definition, STATE 925), (sym_decorated_definition, STATE 925),
    (sym_decorator, STATE 3670), (sym_block, STATE 4931), (sym_pattern, STATE 8086),
    (sym_tuple_pattern, STATE 8101), (sym_list_pattern, STATE 8101),
    (sym_list_splat_pattern, STATE 6819), (sym_as_pattern, STATE 7969),
    (sym_expression, STATE 9883), (sym_primary_expression, STATE 7326),
    (sym_comptime_expression, STATE 7017), (sym_transfer_expression, STATE 7017),
    (sym_not_operator, STATE 7969), (sym_boolean_operator, STATE 7969),
    (sym_binary_operator, STATE 7017), (sym_unary_operator, STATE 7017),
    (sym_comparison_operator, STATE 7969), (sym_lambda, STATE 7969),
    (sym_assignment, STATE 12425), (sym_augmented_assignment, STATE 12425),
    (sym_pattern_list, STATE 8578), (sym_yield, STATE 12425), (sym_attribute, STATE 6836),
    (sym_subscript, STATE 6838), (sym_call, STATE 6845), (sym_mlir_type, STATE 7017),
    (sym_list, STATE 7017), (sym_set, STATE 7017), (sym_tuple, STATE 7017),
    (sym_dictionary, STATE 7017), (sym_struct_literal, STATE 7017),
    (sym_list_comprehension, STATE 7017), (sym_dictionary_comprehension, STATE 7017),
    (sym_set_comprehension, STATE 7017), (sym_generator_expression, STATE 7017),
    (sym_parenthesized_expression, STATE 7017), (sym_conditional_expression, STATE 7969),
    (sym_concatenated_string, STATE 7017), (sym_string, STATE 6751), (sym_await, STATE 7017),
    (aux_sym_module_repeat1, STATE 925), (aux_sym_decorated_definition_repeat1, STATE 3670),
    (sym_identifier, ACTIONS 9), (anon_sym_import, ACTIONS 11), (anon_sym_from, ACTIONS 13),
    (anon_sym_LPAREN, ACTIONS 15), (anon_sym_STAR, ACTIONS 17), (anon_sym_print, ACTIONS 19),
    (anon_sym_comptime, ACTIONS 99), (anon_sym_assert, ACTIONS 23),
    (anon_sym___comptime_assert, ACTIONS 25), (anon_sym_return, ACTIONS 27),
    (anon_sym_del, ACTIONS 29), (anon_sym_raise, ACTIONS 31), (anon_sym_pass, ACTIONS 33),
    (anon_sym_break, ACTIONS 35), (anon_sym_continue, ACTIONS 37),
    (anon_sym___extension, ACTIONS 101), (anon_sym___mlir_region, ACTIONS 103),
    (anon_sym_if, ACTIONS 105), (anon_sym_match, ACTIONS 107), (anon_sym_async, ACTIONS 109),
    (anon_sym_for, ACTIONS 111), (anon_sym_while, ACTIONS 113), (anon_sym_try, ACTIONS 115),
    (anon_sym_with, ACTIONS 117), (anon_sym_def, ACTIONS 119), (anon_sym_fn, ACTIONS 119),
    (anon_sym_LBRACK, ACTIONS 59), (anon_sym_LBRACE, ACTIONS 61), (anon_sym_global, ACTIONS 63),
    (anon_sym_nonlocal, ACTIONS 65), (anon_sym_exec, ACTIONS 67), (anon_sym_type, ACTIONS 69),
    (anon_sym_class, ACTIONS 121), (anon_sym_struct, ACTIONS 121), (anon_sym_mut, ACTIONS 73),
    (anon_sym_out, ACTIONS 73), (anon_sym_trait, ACTIONS 123), (anon_sym_AT, ACTIONS 77),
    (anon_sym_DASH, ACTIONS 79), (anon_sym_PLUS, ACTIONS 79), (anon_sym_ref, ACTIONS 81),
    (anon_sym_var, ACTIONS 81), (anon_sym_not, ACTIONS 83), (anon_sym_TILDE, ACTIONS 79),
    (anon_sym_lambda, ACTIONS 85), (anon_sym_yield, ACTIONS 87), (sym_ellipsis, ACTIONS 89),
    (anon_sym___mlir_type, ACTIONS 91), (sym_integer, ACTIONS 93), (sym_float, ACTIONS 89),
    (anon_sym_await, ACTIONS 95), (sym_true, ACTIONS 93), (sym_false, ACTIONS 93),
    (sym_none, ACTIONS 93), (sym_comment, ACTIONS 3), (sym_line_continuation, ACTIONS 3),
    (sym__dedent, ACTIONS 129), (sym_string_start, ACTIONS 97)]"

definition parse_table_152 :: "(nat \<times> nat) list" where "parse_table_152 = [
    (sym__statement, STATE 925), (sym__simple_statements, STATE 925),
    (sym_import_statement, STATE 11814), (sym_future_import_statement, STATE 11814),
    (sym_import_from_statement, STATE 11814), (sym_print_statement, STATE 11814),
    (sym_assert_statement, STATE 11814), (sym_comptime_assert_statement, STATE 11814),
    (sym_expression_statement, STATE 11814), (sym_tuple_expression, STATE 12425),
    (sym_named_expression, STATE 7969), (sym__named_expression_lhs, STATE 12752),
    (sym_return_statement, STATE 11814), (sym_delete_statement, STATE 11814),
    (sym_raise_statement, STATE 11814), (sym_pass_statement, STATE 11814),
    (sym_break_statement, STATE 11814), (sym_continue_statement, STATE 11814),
    (sym_extension_definition, STATE 925), (sym_mlir_region, STATE 925),
    (sym_comptime_statement, STATE 925), (sym_if_statement, STATE 925),
    (sym_match_statement, STATE 925), (sym_for_statement, STATE 925),
    (sym_while_statement, STATE 925), (sym_try_statement, STATE 925),
    (sym_with_statement, STATE 925), (sym_function_definition, STATE 925),
    (sym_global_statement, STATE 11814), (sym_nonlocal_statement, STATE 11814),
    (sym_exec_statement, STATE 11814), (sym_type_alias_statement, STATE 11814),
    (sym_parameterized_alias_statement, STATE 11814), (sym_class_definition, STATE 925),
    (sym_trait_definition, STATE 925), (sym_decorated_definition, STATE 925),
    (sym_decorator, STATE 3670), (sym_block, STATE 4933), (sym_pattern, STATE 8086),
    (sym_tuple_pattern, STATE 8101), (sym_list_pattern, STATE 8101),
    (sym_list_splat_pattern, STATE 6819), (sym_as_pattern, STATE 7969),
    (sym_expression, STATE 9883), (sym_primary_expression, STATE 7326),
    (sym_comptime_expression, STATE 7017), (sym_transfer_expression, STATE 7017),
    (sym_not_operator, STATE 7969), (sym_boolean_operator, STATE 7969),
    (sym_binary_operator, STATE 7017), (sym_unary_operator, STATE 7017),
    (sym_comparison_operator, STATE 7969), (sym_lambda, STATE 7969),
    (sym_assignment, STATE 12425), (sym_augmented_assignment, STATE 12425),
    (sym_pattern_list, STATE 8578), (sym_yield, STATE 12425), (sym_attribute, STATE 6836),
    (sym_subscript, STATE 6838), (sym_call, STATE 6845), (sym_mlir_type, STATE 7017),
    (sym_list, STATE 7017), (sym_set, STATE 7017), (sym_tuple, STATE 7017),
    (sym_dictionary, STATE 7017), (sym_struct_literal, STATE 7017),
    (sym_list_comprehension, STATE 7017), (sym_dictionary_comprehension, STATE 7017),
    (sym_set_comprehension, STATE 7017), (sym_generator_expression, STATE 7017),
    (sym_parenthesized_expression, STATE 7017), (sym_conditional_expression, STATE 7969),
    (sym_concatenated_string, STATE 7017), (sym_string, STATE 6751), (sym_await, STATE 7017),
    (aux_sym_module_repeat1, STATE 925), (aux_sym_decorated_definition_repeat1, STATE 3670),
    (sym_identifier, ACTIONS 9), (anon_sym_import, ACTIONS 11), (anon_sym_from, ACTIONS 13),
    (anon_sym_LPAREN, ACTIONS 15), (anon_sym_STAR, ACTIONS 17), (anon_sym_print, ACTIONS 19),
    (anon_sym_comptime, ACTIONS 99), (anon_sym_assert, ACTIONS 23),
    (anon_sym___comptime_assert, ACTIONS 25), (anon_sym_return, ACTIONS 27),
    (anon_sym_del, ACTIONS 29), (anon_sym_raise, ACTIONS 31), (anon_sym_pass, ACTIONS 33),
    (anon_sym_break, ACTIONS 35), (anon_sym_continue, ACTIONS 37),
    (anon_sym___extension, ACTIONS 101), (anon_sym___mlir_region, ACTIONS 103),
    (anon_sym_if, ACTIONS 105), (anon_sym_match, ACTIONS 107), (anon_sym_async, ACTIONS 109),
    (anon_sym_for, ACTIONS 111), (anon_sym_while, ACTIONS 113), (anon_sym_try, ACTIONS 115),
    (anon_sym_with, ACTIONS 117), (anon_sym_def, ACTIONS 119), (anon_sym_fn, ACTIONS 119),
    (anon_sym_LBRACK, ACTIONS 59), (anon_sym_LBRACE, ACTIONS 61), (anon_sym_global, ACTIONS 63),
    (anon_sym_nonlocal, ACTIONS 65), (anon_sym_exec, ACTIONS 67), (anon_sym_type, ACTIONS 69),
    (anon_sym_class, ACTIONS 121), (anon_sym_struct, ACTIONS 121), (anon_sym_mut, ACTIONS 73),
    (anon_sym_out, ACTIONS 73), (anon_sym_trait, ACTIONS 123), (anon_sym_AT, ACTIONS 77),
    (anon_sym_DASH, ACTIONS 79), (anon_sym_PLUS, ACTIONS 79), (anon_sym_ref, ACTIONS 81),
    (anon_sym_var, ACTIONS 81), (anon_sym_not, ACTIONS 83), (anon_sym_TILDE, ACTIONS 79),
    (anon_sym_lambda, ACTIONS 85), (anon_sym_yield, ACTIONS 87), (sym_ellipsis, ACTIONS 89),
    (anon_sym___mlir_type, ACTIONS 91), (sym_integer, ACTIONS 93), (sym_float, ACTIONS 89),
    (anon_sym_await, ACTIONS 95), (sym_true, ACTIONS 93), (sym_false, ACTIONS 93),
    (sym_none, ACTIONS 93), (sym_comment, ACTIONS 3), (sym_line_continuation, ACTIONS 3),
    (sym__dedent, ACTIONS 129), (sym_string_start, ACTIONS 97)]"

definition parse_table_153 :: "(nat \<times> nat) list" where "parse_table_153 = [
    (sym__statement, STATE 925), (sym__simple_statements, STATE 925),
    (sym_import_statement, STATE 11814), (sym_future_import_statement, STATE 11814),
    (sym_import_from_statement, STATE 11814), (sym_print_statement, STATE 11814),
    (sym_assert_statement, STATE 11814), (sym_comptime_assert_statement, STATE 11814),
    (sym_expression_statement, STATE 11814), (sym_tuple_expression, STATE 12425),
    (sym_named_expression, STATE 7969), (sym__named_expression_lhs, STATE 12752),
    (sym_return_statement, STATE 11814), (sym_delete_statement, STATE 11814),
    (sym_raise_statement, STATE 11814), (sym_pass_statement, STATE 11814),
    (sym_break_statement, STATE 11814), (sym_continue_statement, STATE 11814),
    (sym_extension_definition, STATE 925), (sym_mlir_region, STATE 925),
    (sym_comptime_statement, STATE 925), (sym_if_statement, STATE 925),
    (sym_match_statement, STATE 925), (sym_for_statement, STATE 925),
    (sym_while_statement, STATE 925), (sym_try_statement, STATE 925),
    (sym_with_statement, STATE 925), (sym_function_definition, STATE 925),
    (sym_global_statement, STATE 11814), (sym_nonlocal_statement, STATE 11814),
    (sym_exec_statement, STATE 11814), (sym_type_alias_statement, STATE 11814),
    (sym_parameterized_alias_statement, STATE 11814), (sym_class_definition, STATE 925),
    (sym_trait_definition, STATE 925), (sym_decorated_definition, STATE 925),
    (sym_decorator, STATE 3670), (sym_block, STATE 4944), (sym_pattern, STATE 8086),
    (sym_tuple_pattern, STATE 8101), (sym_list_pattern, STATE 8101),
    (sym_list_splat_pattern, STATE 6819), (sym_as_pattern, STATE 7969),
    (sym_expression, STATE 9883), (sym_primary_expression, STATE 7326),
    (sym_comptime_expression, STATE 7017), (sym_transfer_expression, STATE 7017),
    (sym_not_operator, STATE 7969), (sym_boolean_operator, STATE 7969),
    (sym_binary_operator, STATE 7017), (sym_unary_operator, STATE 7017),
    (sym_comparison_operator, STATE 7969), (sym_lambda, STATE 7969),
    (sym_assignment, STATE 12425), (sym_augmented_assignment, STATE 12425),
    (sym_pattern_list, STATE 8578), (sym_yield, STATE 12425), (sym_attribute, STATE 6836),
    (sym_subscript, STATE 6838), (sym_call, STATE 6845), (sym_mlir_type, STATE 7017),
    (sym_list, STATE 7017), (sym_set, STATE 7017), (sym_tuple, STATE 7017),
    (sym_dictionary, STATE 7017), (sym_struct_literal, STATE 7017),
    (sym_list_comprehension, STATE 7017), (sym_dictionary_comprehension, STATE 7017),
    (sym_set_comprehension, STATE 7017), (sym_generator_expression, STATE 7017),
    (sym_parenthesized_expression, STATE 7017), (sym_conditional_expression, STATE 7969),
    (sym_concatenated_string, STATE 7017), (sym_string, STATE 6751), (sym_await, STATE 7017),
    (aux_sym_module_repeat1, STATE 925), (aux_sym_decorated_definition_repeat1, STATE 3670),
    (sym_identifier, ACTIONS 9), (anon_sym_import, ACTIONS 11), (anon_sym_from, ACTIONS 13),
    (anon_sym_LPAREN, ACTIONS 15), (anon_sym_STAR, ACTIONS 17), (anon_sym_print, ACTIONS 19),
    (anon_sym_comptime, ACTIONS 99), (anon_sym_assert, ACTIONS 23),
    (anon_sym___comptime_assert, ACTIONS 25), (anon_sym_return, ACTIONS 27),
    (anon_sym_del, ACTIONS 29), (anon_sym_raise, ACTIONS 31), (anon_sym_pass, ACTIONS 33),
    (anon_sym_break, ACTIONS 35), (anon_sym_continue, ACTIONS 37),
    (anon_sym___extension, ACTIONS 101), (anon_sym___mlir_region, ACTIONS 103),
    (anon_sym_if, ACTIONS 105), (anon_sym_match, ACTIONS 107), (anon_sym_async, ACTIONS 109),
    (anon_sym_for, ACTIONS 111), (anon_sym_while, ACTIONS 113), (anon_sym_try, ACTIONS 115),
    (anon_sym_with, ACTIONS 117), (anon_sym_def, ACTIONS 119), (anon_sym_fn, ACTIONS 119),
    (anon_sym_LBRACK, ACTIONS 59), (anon_sym_LBRACE, ACTIONS 61), (anon_sym_global, ACTIONS 63),
    (anon_sym_nonlocal, ACTIONS 65), (anon_sym_exec, ACTIONS 67), (anon_sym_type, ACTIONS 69),
    (anon_sym_class, ACTIONS 121), (anon_sym_struct, ACTIONS 121), (anon_sym_mut, ACTIONS 73),
    (anon_sym_out, ACTIONS 73), (anon_sym_trait, ACTIONS 123), (anon_sym_AT, ACTIONS 77),
    (anon_sym_DASH, ACTIONS 79), (anon_sym_PLUS, ACTIONS 79), (anon_sym_ref, ACTIONS 81),
    (anon_sym_var, ACTIONS 81), (anon_sym_not, ACTIONS 83), (anon_sym_TILDE, ACTIONS 79),
    (anon_sym_lambda, ACTIONS 85), (anon_sym_yield, ACTIONS 87), (sym_ellipsis, ACTIONS 89),
    (anon_sym___mlir_type, ACTIONS 91), (sym_integer, ACTIONS 93), (sym_float, ACTIONS 89),
    (anon_sym_await, ACTIONS 95), (sym_true, ACTIONS 93), (sym_false, ACTIONS 93),
    (sym_none, ACTIONS 93), (sym_comment, ACTIONS 3), (sym_line_continuation, ACTIONS 3),
    (sym__dedent, ACTIONS 129), (sym_string_start, ACTIONS 97)]"

definition parse_table_154 :: "(nat \<times> nat) list" where "parse_table_154 = [
    (sym__statement, STATE 925), (sym__simple_statements, STATE 925),
    (sym_import_statement, STATE 11814), (sym_future_import_statement, STATE 11814),
    (sym_import_from_statement, STATE 11814), (sym_print_statement, STATE 11814),
    (sym_assert_statement, STATE 11814), (sym_comptime_assert_statement, STATE 11814),
    (sym_expression_statement, STATE 11814), (sym_tuple_expression, STATE 12425),
    (sym_named_expression, STATE 7969), (sym__named_expression_lhs, STATE 12752),
    (sym_return_statement, STATE 11814), (sym_delete_statement, STATE 11814),
    (sym_raise_statement, STATE 11814), (sym_pass_statement, STATE 11814),
    (sym_break_statement, STATE 11814), (sym_continue_statement, STATE 11814),
    (sym_extension_definition, STATE 925), (sym_mlir_region, STATE 925),
    (sym_comptime_statement, STATE 925), (sym_if_statement, STATE 925),
    (sym_match_statement, STATE 925), (sym_for_statement, STATE 925),
    (sym_while_statement, STATE 925), (sym_try_statement, STATE 925),
    (sym_with_statement, STATE 925), (sym_function_definition, STATE 925),
    (sym_global_statement, STATE 11814), (sym_nonlocal_statement, STATE 11814),
    (sym_exec_statement, STATE 11814), (sym_type_alias_statement, STATE 11814),
    (sym_parameterized_alias_statement, STATE 11814), (sym_class_definition, STATE 925),
    (sym_trait_definition, STATE 925), (sym_decorated_definition, STATE 925),
    (sym_decorator, STATE 3670), (sym_block, STATE 4946), (sym_pattern, STATE 8086),
    (sym_tuple_pattern, STATE 8101), (sym_list_pattern, STATE 8101),
    (sym_list_splat_pattern, STATE 6819), (sym_as_pattern, STATE 7969),
    (sym_expression, STATE 9883), (sym_primary_expression, STATE 7326),
    (sym_comptime_expression, STATE 7017), (sym_transfer_expression, STATE 7017),
    (sym_not_operator, STATE 7969), (sym_boolean_operator, STATE 7969),
    (sym_binary_operator, STATE 7017), (sym_unary_operator, STATE 7017),
    (sym_comparison_operator, STATE 7969), (sym_lambda, STATE 7969),
    (sym_assignment, STATE 12425), (sym_augmented_assignment, STATE 12425),
    (sym_pattern_list, STATE 8578), (sym_yield, STATE 12425), (sym_attribute, STATE 6836),
    (sym_subscript, STATE 6838), (sym_call, STATE 6845), (sym_mlir_type, STATE 7017),
    (sym_list, STATE 7017), (sym_set, STATE 7017), (sym_tuple, STATE 7017),
    (sym_dictionary, STATE 7017), (sym_struct_literal, STATE 7017),
    (sym_list_comprehension, STATE 7017), (sym_dictionary_comprehension, STATE 7017),
    (sym_set_comprehension, STATE 7017), (sym_generator_expression, STATE 7017),
    (sym_parenthesized_expression, STATE 7017), (sym_conditional_expression, STATE 7969),
    (sym_concatenated_string, STATE 7017), (sym_string, STATE 6751), (sym_await, STATE 7017),
    (aux_sym_module_repeat1, STATE 925), (aux_sym_decorated_definition_repeat1, STATE 3670),
    (sym_identifier, ACTIONS 9), (anon_sym_import, ACTIONS 11), (anon_sym_from, ACTIONS 13),
    (anon_sym_LPAREN, ACTIONS 15), (anon_sym_STAR, ACTIONS 17), (anon_sym_print, ACTIONS 19),
    (anon_sym_comptime, ACTIONS 99), (anon_sym_assert, ACTIONS 23),
    (anon_sym___comptime_assert, ACTIONS 25), (anon_sym_return, ACTIONS 27),
    (anon_sym_del, ACTIONS 29), (anon_sym_raise, ACTIONS 31), (anon_sym_pass, ACTIONS 33),
    (anon_sym_break, ACTIONS 35), (anon_sym_continue, ACTIONS 37),
    (anon_sym___extension, ACTIONS 101), (anon_sym___mlir_region, ACTIONS 103),
    (anon_sym_if, ACTIONS 105), (anon_sym_match, ACTIONS 107), (anon_sym_async, ACTIONS 109),
    (anon_sym_for, ACTIONS 111), (anon_sym_while, ACTIONS 113), (anon_sym_try, ACTIONS 115),
    (anon_sym_with, ACTIONS 117), (anon_sym_def, ACTIONS 119), (anon_sym_fn, ACTIONS 119),
    (anon_sym_LBRACK, ACTIONS 59), (anon_sym_LBRACE, ACTIONS 61), (anon_sym_global, ACTIONS 63),
    (anon_sym_nonlocal, ACTIONS 65), (anon_sym_exec, ACTIONS 67), (anon_sym_type, ACTIONS 69),
    (anon_sym_class, ACTIONS 121), (anon_sym_struct, ACTIONS 121), (anon_sym_mut, ACTIONS 73),
    (anon_sym_out, ACTIONS 73), (anon_sym_trait, ACTIONS 123), (anon_sym_AT, ACTIONS 77),
    (anon_sym_DASH, ACTIONS 79), (anon_sym_PLUS, ACTIONS 79), (anon_sym_ref, ACTIONS 81),
    (anon_sym_var, ACTIONS 81), (anon_sym_not, ACTIONS 83), (anon_sym_TILDE, ACTIONS 79),
    (anon_sym_lambda, ACTIONS 85), (anon_sym_yield, ACTIONS 87), (sym_ellipsis, ACTIONS 89),
    (anon_sym___mlir_type, ACTIONS 91), (sym_integer, ACTIONS 93), (sym_float, ACTIONS 89),
    (anon_sym_await, ACTIONS 95), (sym_true, ACTIONS 93), (sym_false, ACTIONS 93),
    (sym_none, ACTIONS 93), (sym_comment, ACTIONS 3), (sym_line_continuation, ACTIONS 3),
    (sym__dedent, ACTIONS 129), (sym_string_start, ACTIONS 97)]"

definition parse_table_155 :: "(nat \<times> nat) list" where "parse_table_155 = [
    (sym__statement, STATE 925), (sym__simple_statements, STATE 925),
    (sym_import_statement, STATE 11814), (sym_future_import_statement, STATE 11814),
    (sym_import_from_statement, STATE 11814), (sym_print_statement, STATE 11814),
    (sym_assert_statement, STATE 11814), (sym_comptime_assert_statement, STATE 11814),
    (sym_expression_statement, STATE 11814), (sym_tuple_expression, STATE 12425),
    (sym_named_expression, STATE 7969), (sym__named_expression_lhs, STATE 12752),
    (sym_return_statement, STATE 11814), (sym_delete_statement, STATE 11814),
    (sym_raise_statement, STATE 11814), (sym_pass_statement, STATE 11814),
    (sym_break_statement, STATE 11814), (sym_continue_statement, STATE 11814),
    (sym_extension_definition, STATE 925), (sym_mlir_region, STATE 925),
    (sym_comptime_statement, STATE 925), (sym_if_statement, STATE 925),
    (sym_match_statement, STATE 925), (sym_for_statement, STATE 925),
    (sym_while_statement, STATE 925), (sym_try_statement, STATE 925),
    (sym_with_statement, STATE 925), (sym_function_definition, STATE 925),
    (sym_global_statement, STATE 11814), (sym_nonlocal_statement, STATE 11814),
    (sym_exec_statement, STATE 11814), (sym_type_alias_statement, STATE 11814),
    (sym_parameterized_alias_statement, STATE 11814), (sym_class_definition, STATE 925),
    (sym_trait_definition, STATE 925), (sym_decorated_definition, STATE 925),
    (sym_decorator, STATE 3670), (sym_block, STATE 4963), (sym_pattern, STATE 8086),
    (sym_tuple_pattern, STATE 8101), (sym_list_pattern, STATE 8101),
    (sym_list_splat_pattern, STATE 6819), (sym_as_pattern, STATE 7969),
    (sym_expression, STATE 9883), (sym_primary_expression, STATE 7326),
    (sym_comptime_expression, STATE 7017), (sym_transfer_expression, STATE 7017),
    (sym_not_operator, STATE 7969), (sym_boolean_operator, STATE 7969),
    (sym_binary_operator, STATE 7017), (sym_unary_operator, STATE 7017),
    (sym_comparison_operator, STATE 7969), (sym_lambda, STATE 7969),
    (sym_assignment, STATE 12425), (sym_augmented_assignment, STATE 12425),
    (sym_pattern_list, STATE 8578), (sym_yield, STATE 12425), (sym_attribute, STATE 6836),
    (sym_subscript, STATE 6838), (sym_call, STATE 6845), (sym_mlir_type, STATE 7017),
    (sym_list, STATE 7017), (sym_set, STATE 7017), (sym_tuple, STATE 7017),
    (sym_dictionary, STATE 7017), (sym_struct_literal, STATE 7017),
    (sym_list_comprehension, STATE 7017), (sym_dictionary_comprehension, STATE 7017),
    (sym_set_comprehension, STATE 7017), (sym_generator_expression, STATE 7017),
    (sym_parenthesized_expression, STATE 7017), (sym_conditional_expression, STATE 7969),
    (sym_concatenated_string, STATE 7017), (sym_string, STATE 6751), (sym_await, STATE 7017),
    (aux_sym_module_repeat1, STATE 925), (aux_sym_decorated_definition_repeat1, STATE 3670),
    (sym_identifier, ACTIONS 9), (anon_sym_import, ACTIONS 11), (anon_sym_from, ACTIONS 13),
    (anon_sym_LPAREN, ACTIONS 15), (anon_sym_STAR, ACTIONS 17), (anon_sym_print, ACTIONS 19),
    (anon_sym_comptime, ACTIONS 99), (anon_sym_assert, ACTIONS 23),
    (anon_sym___comptime_assert, ACTIONS 25), (anon_sym_return, ACTIONS 27),
    (anon_sym_del, ACTIONS 29), (anon_sym_raise, ACTIONS 31), (anon_sym_pass, ACTIONS 33),
    (anon_sym_break, ACTIONS 35), (anon_sym_continue, ACTIONS 37),
    (anon_sym___extension, ACTIONS 101), (anon_sym___mlir_region, ACTIONS 103),
    (anon_sym_if, ACTIONS 105), (anon_sym_match, ACTIONS 107), (anon_sym_async, ACTIONS 109),
    (anon_sym_for, ACTIONS 111), (anon_sym_while, ACTIONS 113), (anon_sym_try, ACTIONS 115),
    (anon_sym_with, ACTIONS 117), (anon_sym_def, ACTIONS 119), (anon_sym_fn, ACTIONS 119),
    (anon_sym_LBRACK, ACTIONS 59), (anon_sym_LBRACE, ACTIONS 61), (anon_sym_global, ACTIONS 63),
    (anon_sym_nonlocal, ACTIONS 65), (anon_sym_exec, ACTIONS 67), (anon_sym_type, ACTIONS 69),
    (anon_sym_class, ACTIONS 121), (anon_sym_struct, ACTIONS 121), (anon_sym_mut, ACTIONS 73),
    (anon_sym_out, ACTIONS 73), (anon_sym_trait, ACTIONS 123), (anon_sym_AT, ACTIONS 77),
    (anon_sym_DASH, ACTIONS 79), (anon_sym_PLUS, ACTIONS 79), (anon_sym_ref, ACTIONS 81),
    (anon_sym_var, ACTIONS 81), (anon_sym_not, ACTIONS 83), (anon_sym_TILDE, ACTIONS 79),
    (anon_sym_lambda, ACTIONS 85), (anon_sym_yield, ACTIONS 87), (sym_ellipsis, ACTIONS 89),
    (anon_sym___mlir_type, ACTIONS 91), (sym_integer, ACTIONS 93), (sym_float, ACTIONS 89),
    (anon_sym_await, ACTIONS 95), (sym_true, ACTIONS 93), (sym_false, ACTIONS 93),
    (sym_none, ACTIONS 93), (sym_comment, ACTIONS 3), (sym_line_continuation, ACTIONS 3),
    (sym__dedent, ACTIONS 129), (sym_string_start, ACTIONS 97)]"

definition parse_table_156 :: "(nat \<times> nat) list" where "parse_table_156 = [
    (sym__statement, STATE 925), (sym__simple_statements, STATE 925),
    (sym_import_statement, STATE 11814), (sym_future_import_statement, STATE 11814),
    (sym_import_from_statement, STATE 11814), (sym_print_statement, STATE 11814),
    (sym_assert_statement, STATE 11814), (sym_comptime_assert_statement, STATE 11814),
    (sym_expression_statement, STATE 11814), (sym_tuple_expression, STATE 12425),
    (sym_named_expression, STATE 7969), (sym__named_expression_lhs, STATE 12752),
    (sym_return_statement, STATE 11814), (sym_delete_statement, STATE 11814),
    (sym_raise_statement, STATE 11814), (sym_pass_statement, STATE 11814),
    (sym_break_statement, STATE 11814), (sym_continue_statement, STATE 11814),
    (sym_extension_definition, STATE 925), (sym_mlir_region, STATE 925),
    (sym_comptime_statement, STATE 925), (sym_if_statement, STATE 925),
    (sym_match_statement, STATE 925), (sym_for_statement, STATE 925),
    (sym_while_statement, STATE 925), (sym_try_statement, STATE 925),
    (sym_with_statement, STATE 925), (sym_function_definition, STATE 925),
    (sym_global_statement, STATE 11814), (sym_nonlocal_statement, STATE 11814),
    (sym_exec_statement, STATE 11814), (sym_type_alias_statement, STATE 11814),
    (sym_parameterized_alias_statement, STATE 11814), (sym_class_definition, STATE 925),
    (sym_trait_definition, STATE 925), (sym_decorated_definition, STATE 925),
    (sym_decorator, STATE 3670), (sym_block, STATE 4966), (sym_pattern, STATE 8086),
    (sym_tuple_pattern, STATE 8101), (sym_list_pattern, STATE 8101),
    (sym_list_splat_pattern, STATE 6819), (sym_as_pattern, STATE 7969),
    (sym_expression, STATE 9883), (sym_primary_expression, STATE 7326),
    (sym_comptime_expression, STATE 7017), (sym_transfer_expression, STATE 7017),
    (sym_not_operator, STATE 7969), (sym_boolean_operator, STATE 7969),
    (sym_binary_operator, STATE 7017), (sym_unary_operator, STATE 7017),
    (sym_comparison_operator, STATE 7969), (sym_lambda, STATE 7969),
    (sym_assignment, STATE 12425), (sym_augmented_assignment, STATE 12425),
    (sym_pattern_list, STATE 8578), (sym_yield, STATE 12425), (sym_attribute, STATE 6836),
    (sym_subscript, STATE 6838), (sym_call, STATE 6845), (sym_mlir_type, STATE 7017),
    (sym_list, STATE 7017), (sym_set, STATE 7017), (sym_tuple, STATE 7017),
    (sym_dictionary, STATE 7017), (sym_struct_literal, STATE 7017),
    (sym_list_comprehension, STATE 7017), (sym_dictionary_comprehension, STATE 7017),
    (sym_set_comprehension, STATE 7017), (sym_generator_expression, STATE 7017),
    (sym_parenthesized_expression, STATE 7017), (sym_conditional_expression, STATE 7969),
    (sym_concatenated_string, STATE 7017), (sym_string, STATE 6751), (sym_await, STATE 7017),
    (aux_sym_module_repeat1, STATE 925), (aux_sym_decorated_definition_repeat1, STATE 3670),
    (sym_identifier, ACTIONS 9), (anon_sym_import, ACTIONS 11), (anon_sym_from, ACTIONS 13),
    (anon_sym_LPAREN, ACTIONS 15), (anon_sym_STAR, ACTIONS 17), (anon_sym_print, ACTIONS 19),
    (anon_sym_comptime, ACTIONS 99), (anon_sym_assert, ACTIONS 23),
    (anon_sym___comptime_assert, ACTIONS 25), (anon_sym_return, ACTIONS 27),
    (anon_sym_del, ACTIONS 29), (anon_sym_raise, ACTIONS 31), (anon_sym_pass, ACTIONS 33),
    (anon_sym_break, ACTIONS 35), (anon_sym_continue, ACTIONS 37),
    (anon_sym___extension, ACTIONS 101), (anon_sym___mlir_region, ACTIONS 103),
    (anon_sym_if, ACTIONS 105), (anon_sym_match, ACTIONS 107), (anon_sym_async, ACTIONS 109),
    (anon_sym_for, ACTIONS 111), (anon_sym_while, ACTIONS 113), (anon_sym_try, ACTIONS 115),
    (anon_sym_with, ACTIONS 117), (anon_sym_def, ACTIONS 119), (anon_sym_fn, ACTIONS 119),
    (anon_sym_LBRACK, ACTIONS 59), (anon_sym_LBRACE, ACTIONS 61), (anon_sym_global, ACTIONS 63),
    (anon_sym_nonlocal, ACTIONS 65), (anon_sym_exec, ACTIONS 67), (anon_sym_type, ACTIONS 69),
    (anon_sym_class, ACTIONS 121), (anon_sym_struct, ACTIONS 121), (anon_sym_mut, ACTIONS 73),
    (anon_sym_out, ACTIONS 73), (anon_sym_trait, ACTIONS 123), (anon_sym_AT, ACTIONS 77),
    (anon_sym_DASH, ACTIONS 79), (anon_sym_PLUS, ACTIONS 79), (anon_sym_ref, ACTIONS 81),
    (anon_sym_var, ACTIONS 81), (anon_sym_not, ACTIONS 83), (anon_sym_TILDE, ACTIONS 79),
    (anon_sym_lambda, ACTIONS 85), (anon_sym_yield, ACTIONS 87), (sym_ellipsis, ACTIONS 89),
    (anon_sym___mlir_type, ACTIONS 91), (sym_integer, ACTIONS 93), (sym_float, ACTIONS 89),
    (anon_sym_await, ACTIONS 95), (sym_true, ACTIONS 93), (sym_false, ACTIONS 93),
    (sym_none, ACTIONS 93), (sym_comment, ACTIONS 3), (sym_line_continuation, ACTIONS 3),
    (sym__dedent, ACTIONS 129), (sym_string_start, ACTIONS 97)]"

definition parse_table_157 :: "(nat \<times> nat) list" where "parse_table_157 = [
    (sym__statement, STATE 925), (sym__simple_statements, STATE 925),
    (sym_import_statement, STATE 11814), (sym_future_import_statement, STATE 11814),
    (sym_import_from_statement, STATE 11814), (sym_print_statement, STATE 11814),
    (sym_assert_statement, STATE 11814), (sym_comptime_assert_statement, STATE 11814),
    (sym_expression_statement, STATE 11814), (sym_tuple_expression, STATE 12425),
    (sym_named_expression, STATE 7969), (sym__named_expression_lhs, STATE 12752),
    (sym_return_statement, STATE 11814), (sym_delete_statement, STATE 11814),
    (sym_raise_statement, STATE 11814), (sym_pass_statement, STATE 11814),
    (sym_break_statement, STATE 11814), (sym_continue_statement, STATE 11814),
    (sym_extension_definition, STATE 925), (sym_mlir_region, STATE 925),
    (sym_comptime_statement, STATE 925), (sym_if_statement, STATE 925),
    (sym_match_statement, STATE 925), (sym_for_statement, STATE 925),
    (sym_while_statement, STATE 925), (sym_try_statement, STATE 925),
    (sym_with_statement, STATE 925), (sym_function_definition, STATE 925),
    (sym_global_statement, STATE 11814), (sym_nonlocal_statement, STATE 11814),
    (sym_exec_statement, STATE 11814), (sym_type_alias_statement, STATE 11814),
    (sym_parameterized_alias_statement, STATE 11814), (sym_class_definition, STATE 925),
    (sym_trait_definition, STATE 925), (sym_decorated_definition, STATE 925),
    (sym_decorator, STATE 3670), (sym_block, STATE 4984), (sym_pattern, STATE 8086),
    (sym_tuple_pattern, STATE 8101), (sym_list_pattern, STATE 8101),
    (sym_list_splat_pattern, STATE 6819), (sym_as_pattern, STATE 7969),
    (sym_expression, STATE 9883), (sym_primary_expression, STATE 7326),
    (sym_comptime_expression, STATE 7017), (sym_transfer_expression, STATE 7017),
    (sym_not_operator, STATE 7969), (sym_boolean_operator, STATE 7969),
    (sym_binary_operator, STATE 7017), (sym_unary_operator, STATE 7017),
    (sym_comparison_operator, STATE 7969), (sym_lambda, STATE 7969),
    (sym_assignment, STATE 12425), (sym_augmented_assignment, STATE 12425),
    (sym_pattern_list, STATE 8578), (sym_yield, STATE 12425), (sym_attribute, STATE 6836),
    (sym_subscript, STATE 6838), (sym_call, STATE 6845), (sym_mlir_type, STATE 7017),
    (sym_list, STATE 7017), (sym_set, STATE 7017), (sym_tuple, STATE 7017),
    (sym_dictionary, STATE 7017), (sym_struct_literal, STATE 7017),
    (sym_list_comprehension, STATE 7017), (sym_dictionary_comprehension, STATE 7017),
    (sym_set_comprehension, STATE 7017), (sym_generator_expression, STATE 7017),
    (sym_parenthesized_expression, STATE 7017), (sym_conditional_expression, STATE 7969),
    (sym_concatenated_string, STATE 7017), (sym_string, STATE 6751), (sym_await, STATE 7017),
    (aux_sym_module_repeat1, STATE 925), (aux_sym_decorated_definition_repeat1, STATE 3670),
    (sym_identifier, ACTIONS 9), (anon_sym_import, ACTIONS 11), (anon_sym_from, ACTIONS 13),
    (anon_sym_LPAREN, ACTIONS 15), (anon_sym_STAR, ACTIONS 17), (anon_sym_print, ACTIONS 19),
    (anon_sym_comptime, ACTIONS 99), (anon_sym_assert, ACTIONS 23),
    (anon_sym___comptime_assert, ACTIONS 25), (anon_sym_return, ACTIONS 27),
    (anon_sym_del, ACTIONS 29), (anon_sym_raise, ACTIONS 31), (anon_sym_pass, ACTIONS 33),
    (anon_sym_break, ACTIONS 35), (anon_sym_continue, ACTIONS 37),
    (anon_sym___extension, ACTIONS 101), (anon_sym___mlir_region, ACTIONS 103),
    (anon_sym_if, ACTIONS 105), (anon_sym_match, ACTIONS 107), (anon_sym_async, ACTIONS 109),
    (anon_sym_for, ACTIONS 111), (anon_sym_while, ACTIONS 113), (anon_sym_try, ACTIONS 115),
    (anon_sym_with, ACTIONS 117), (anon_sym_def, ACTIONS 119), (anon_sym_fn, ACTIONS 119),
    (anon_sym_LBRACK, ACTIONS 59), (anon_sym_LBRACE, ACTIONS 61), (anon_sym_global, ACTIONS 63),
    (anon_sym_nonlocal, ACTIONS 65), (anon_sym_exec, ACTIONS 67), (anon_sym_type, ACTIONS 69),
    (anon_sym_class, ACTIONS 121), (anon_sym_struct, ACTIONS 121), (anon_sym_mut, ACTIONS 73),
    (anon_sym_out, ACTIONS 73), (anon_sym_trait, ACTIONS 123), (anon_sym_AT, ACTIONS 77),
    (anon_sym_DASH, ACTIONS 79), (anon_sym_PLUS, ACTIONS 79), (anon_sym_ref, ACTIONS 81),
    (anon_sym_var, ACTIONS 81), (anon_sym_not, ACTIONS 83), (anon_sym_TILDE, ACTIONS 79),
    (anon_sym_lambda, ACTIONS 85), (anon_sym_yield, ACTIONS 87), (sym_ellipsis, ACTIONS 89),
    (anon_sym___mlir_type, ACTIONS 91), (sym_integer, ACTIONS 93), (sym_float, ACTIONS 89),
    (anon_sym_await, ACTIONS 95), (sym_true, ACTIONS 93), (sym_false, ACTIONS 93),
    (sym_none, ACTIONS 93), (sym_comment, ACTIONS 3), (sym_line_continuation, ACTIONS 3),
    (sym__dedent, ACTIONS 129), (sym_string_start, ACTIONS 97)]"

definition parse_table_158 :: "(nat \<times> nat) list" where "parse_table_158 = [
    (sym__statement, STATE 925), (sym__simple_statements, STATE 925),
    (sym_import_statement, STATE 11814), (sym_future_import_statement, STATE 11814),
    (sym_import_from_statement, STATE 11814), (sym_print_statement, STATE 11814),
    (sym_assert_statement, STATE 11814), (sym_comptime_assert_statement, STATE 11814),
    (sym_expression_statement, STATE 11814), (sym_tuple_expression, STATE 12425),
    (sym_named_expression, STATE 7969), (sym__named_expression_lhs, STATE 12752),
    (sym_return_statement, STATE 11814), (sym_delete_statement, STATE 11814),
    (sym_raise_statement, STATE 11814), (sym_pass_statement, STATE 11814),
    (sym_break_statement, STATE 11814), (sym_continue_statement, STATE 11814),
    (sym_extension_definition, STATE 925), (sym_mlir_region, STATE 925),
    (sym_comptime_statement, STATE 925), (sym_if_statement, STATE 925),
    (sym_match_statement, STATE 925), (sym_for_statement, STATE 925),
    (sym_while_statement, STATE 925), (sym_try_statement, STATE 925),
    (sym_with_statement, STATE 925), (sym_function_definition, STATE 925),
    (sym_global_statement, STATE 11814), (sym_nonlocal_statement, STATE 11814),
    (sym_exec_statement, STATE 11814), (sym_type_alias_statement, STATE 11814),
    (sym_parameterized_alias_statement, STATE 11814), (sym_class_definition, STATE 925),
    (sym_trait_definition, STATE 925), (sym_decorated_definition, STATE 925),
    (sym_decorator, STATE 3670), (sym_block, STATE 4998), (sym_pattern, STATE 8086),
    (sym_tuple_pattern, STATE 8101), (sym_list_pattern, STATE 8101),
    (sym_list_splat_pattern, STATE 6819), (sym_as_pattern, STATE 7969),
    (sym_expression, STATE 9883), (sym_primary_expression, STATE 7326),
    (sym_comptime_expression, STATE 7017), (sym_transfer_expression, STATE 7017),
    (sym_not_operator, STATE 7969), (sym_boolean_operator, STATE 7969),
    (sym_binary_operator, STATE 7017), (sym_unary_operator, STATE 7017),
    (sym_comparison_operator, STATE 7969), (sym_lambda, STATE 7969),
    (sym_assignment, STATE 12425), (sym_augmented_assignment, STATE 12425),
    (sym_pattern_list, STATE 8578), (sym_yield, STATE 12425), (sym_attribute, STATE 6836),
    (sym_subscript, STATE 6838), (sym_call, STATE 6845), (sym_mlir_type, STATE 7017),
    (sym_list, STATE 7017), (sym_set, STATE 7017), (sym_tuple, STATE 7017),
    (sym_dictionary, STATE 7017), (sym_struct_literal, STATE 7017),
    (sym_list_comprehension, STATE 7017), (sym_dictionary_comprehension, STATE 7017),
    (sym_set_comprehension, STATE 7017), (sym_generator_expression, STATE 7017),
    (sym_parenthesized_expression, STATE 7017), (sym_conditional_expression, STATE 7969),
    (sym_concatenated_string, STATE 7017), (sym_string, STATE 6751), (sym_await, STATE 7017),
    (aux_sym_module_repeat1, STATE 925), (aux_sym_decorated_definition_repeat1, STATE 3670),
    (sym_identifier, ACTIONS 9), (anon_sym_import, ACTIONS 11), (anon_sym_from, ACTIONS 13),
    (anon_sym_LPAREN, ACTIONS 15), (anon_sym_STAR, ACTIONS 17), (anon_sym_print, ACTIONS 19),
    (anon_sym_comptime, ACTIONS 99), (anon_sym_assert, ACTIONS 23),
    (anon_sym___comptime_assert, ACTIONS 25), (anon_sym_return, ACTIONS 27),
    (anon_sym_del, ACTIONS 29), (anon_sym_raise, ACTIONS 31), (anon_sym_pass, ACTIONS 33),
    (anon_sym_break, ACTIONS 35), (anon_sym_continue, ACTIONS 37),
    (anon_sym___extension, ACTIONS 101), (anon_sym___mlir_region, ACTIONS 103),
    (anon_sym_if, ACTIONS 105), (anon_sym_match, ACTIONS 107), (anon_sym_async, ACTIONS 109),
    (anon_sym_for, ACTIONS 111), (anon_sym_while, ACTIONS 113), (anon_sym_try, ACTIONS 115),
    (anon_sym_with, ACTIONS 117), (anon_sym_def, ACTIONS 119), (anon_sym_fn, ACTIONS 119),
    (anon_sym_LBRACK, ACTIONS 59), (anon_sym_LBRACE, ACTIONS 61), (anon_sym_global, ACTIONS 63),
    (anon_sym_nonlocal, ACTIONS 65), (anon_sym_exec, ACTIONS 67), (anon_sym_type, ACTIONS 69),
    (anon_sym_class, ACTIONS 121), (anon_sym_struct, ACTIONS 121), (anon_sym_mut, ACTIONS 73),
    (anon_sym_out, ACTIONS 73), (anon_sym_trait, ACTIONS 123), (anon_sym_AT, ACTIONS 77),
    (anon_sym_DASH, ACTIONS 79), (anon_sym_PLUS, ACTIONS 79), (anon_sym_ref, ACTIONS 81),
    (anon_sym_var, ACTIONS 81), (anon_sym_not, ACTIONS 83), (anon_sym_TILDE, ACTIONS 79),
    (anon_sym_lambda, ACTIONS 85), (anon_sym_yield, ACTIONS 87), (sym_ellipsis, ACTIONS 89),
    (anon_sym___mlir_type, ACTIONS 91), (sym_integer, ACTIONS 93), (sym_float, ACTIONS 89),
    (anon_sym_await, ACTIONS 95), (sym_true, ACTIONS 93), (sym_false, ACTIONS 93),
    (sym_none, ACTIONS 93), (sym_comment, ACTIONS 3), (sym_line_continuation, ACTIONS 3),
    (sym__dedent, ACTIONS 129), (sym_string_start, ACTIONS 97)]"

definition parse_table_159 :: "(nat \<times> nat) list" where "parse_table_159 = [
    (sym__statement, STATE 925), (sym__simple_statements, STATE 925),
    (sym_import_statement, STATE 11814), (sym_future_import_statement, STATE 11814),
    (sym_import_from_statement, STATE 11814), (sym_print_statement, STATE 11814),
    (sym_assert_statement, STATE 11814), (sym_comptime_assert_statement, STATE 11814),
    (sym_expression_statement, STATE 11814), (sym_tuple_expression, STATE 12425),
    (sym_named_expression, STATE 7969), (sym__named_expression_lhs, STATE 12752),
    (sym_return_statement, STATE 11814), (sym_delete_statement, STATE 11814),
    (sym_raise_statement, STATE 11814), (sym_pass_statement, STATE 11814),
    (sym_break_statement, STATE 11814), (sym_continue_statement, STATE 11814),
    (sym_extension_definition, STATE 925), (sym_mlir_region, STATE 925),
    (sym_comptime_statement, STATE 925), (sym_if_statement, STATE 925),
    (sym_match_statement, STATE 925), (sym_for_statement, STATE 925),
    (sym_while_statement, STATE 925), (sym_try_statement, STATE 925),
    (sym_with_statement, STATE 925), (sym_function_definition, STATE 925),
    (sym_global_statement, STATE 11814), (sym_nonlocal_statement, STATE 11814),
    (sym_exec_statement, STATE 11814), (sym_type_alias_statement, STATE 11814),
    (sym_parameterized_alias_statement, STATE 11814), (sym_class_definition, STATE 925),
    (sym_trait_definition, STATE 925), (sym_decorated_definition, STATE 925),
    (sym_decorator, STATE 3670), (sym_block, STATE 4999), (sym_pattern, STATE 8086),
    (sym_tuple_pattern, STATE 8101), (sym_list_pattern, STATE 8101),
    (sym_list_splat_pattern, STATE 6819), (sym_as_pattern, STATE 7969),
    (sym_expression, STATE 9883), (sym_primary_expression, STATE 7326),
    (sym_comptime_expression, STATE 7017), (sym_transfer_expression, STATE 7017),
    (sym_not_operator, STATE 7969), (sym_boolean_operator, STATE 7969),
    (sym_binary_operator, STATE 7017), (sym_unary_operator, STATE 7017),
    (sym_comparison_operator, STATE 7969), (sym_lambda, STATE 7969),
    (sym_assignment, STATE 12425), (sym_augmented_assignment, STATE 12425),
    (sym_pattern_list, STATE 8578), (sym_yield, STATE 12425), (sym_attribute, STATE 6836),
    (sym_subscript, STATE 6838), (sym_call, STATE 6845), (sym_mlir_type, STATE 7017),
    (sym_list, STATE 7017), (sym_set, STATE 7017), (sym_tuple, STATE 7017),
    (sym_dictionary, STATE 7017), (sym_struct_literal, STATE 7017),
    (sym_list_comprehension, STATE 7017), (sym_dictionary_comprehension, STATE 7017),
    (sym_set_comprehension, STATE 7017), (sym_generator_expression, STATE 7017),
    (sym_parenthesized_expression, STATE 7017), (sym_conditional_expression, STATE 7969),
    (sym_concatenated_string, STATE 7017), (sym_string, STATE 6751), (sym_await, STATE 7017),
    (aux_sym_module_repeat1, STATE 925), (aux_sym_decorated_definition_repeat1, STATE 3670),
    (sym_identifier, ACTIONS 9), (anon_sym_import, ACTIONS 11), (anon_sym_from, ACTIONS 13),
    (anon_sym_LPAREN, ACTIONS 15), (anon_sym_STAR, ACTIONS 17), (anon_sym_print, ACTIONS 19),
    (anon_sym_comptime, ACTIONS 99), (anon_sym_assert, ACTIONS 23),
    (anon_sym___comptime_assert, ACTIONS 25), (anon_sym_return, ACTIONS 27),
    (anon_sym_del, ACTIONS 29), (anon_sym_raise, ACTIONS 31), (anon_sym_pass, ACTIONS 33),
    (anon_sym_break, ACTIONS 35), (anon_sym_continue, ACTIONS 37),
    (anon_sym___extension, ACTIONS 101), (anon_sym___mlir_region, ACTIONS 103),
    (anon_sym_if, ACTIONS 105), (anon_sym_match, ACTIONS 107), (anon_sym_async, ACTIONS 109),
    (anon_sym_for, ACTIONS 111), (anon_sym_while, ACTIONS 113), (anon_sym_try, ACTIONS 115),
    (anon_sym_with, ACTIONS 117), (anon_sym_def, ACTIONS 119), (anon_sym_fn, ACTIONS 119),
    (anon_sym_LBRACK, ACTIONS 59), (anon_sym_LBRACE, ACTIONS 61), (anon_sym_global, ACTIONS 63),
    (anon_sym_nonlocal, ACTIONS 65), (anon_sym_exec, ACTIONS 67), (anon_sym_type, ACTIONS 69),
    (anon_sym_class, ACTIONS 121), (anon_sym_struct, ACTIONS 121), (anon_sym_mut, ACTIONS 73),
    (anon_sym_out, ACTIONS 73), (anon_sym_trait, ACTIONS 123), (anon_sym_AT, ACTIONS 77),
    (anon_sym_DASH, ACTIONS 79), (anon_sym_PLUS, ACTIONS 79), (anon_sym_ref, ACTIONS 81),
    (anon_sym_var, ACTIONS 81), (anon_sym_not, ACTIONS 83), (anon_sym_TILDE, ACTIONS 79),
    (anon_sym_lambda, ACTIONS 85), (anon_sym_yield, ACTIONS 87), (sym_ellipsis, ACTIONS 89),
    (anon_sym___mlir_type, ACTIONS 91), (sym_integer, ACTIONS 93), (sym_float, ACTIONS 89),
    (anon_sym_await, ACTIONS 95), (sym_true, ACTIONS 93), (sym_false, ACTIONS 93),
    (sym_none, ACTIONS 93), (sym_comment, ACTIONS 3), (sym_line_continuation, ACTIONS 3),
    (sym__dedent, ACTIONS 129), (sym_string_start, ACTIONS 97)]"

definition parse_table_160 :: "(nat \<times> nat) list" where "parse_table_160 = [
    (sym__statement, STATE 925), (sym__simple_statements, STATE 925),
    (sym_import_statement, STATE 11814), (sym_future_import_statement, STATE 11814),
    (sym_import_from_statement, STATE 11814), (sym_print_statement, STATE 11814),
    (sym_assert_statement, STATE 11814), (sym_comptime_assert_statement, STATE 11814),
    (sym_expression_statement, STATE 11814), (sym_tuple_expression, STATE 12425),
    (sym_named_expression, STATE 7969), (sym__named_expression_lhs, STATE 12752),
    (sym_return_statement, STATE 11814), (sym_delete_statement, STATE 11814),
    (sym_raise_statement, STATE 11814), (sym_pass_statement, STATE 11814),
    (sym_break_statement, STATE 11814), (sym_continue_statement, STATE 11814),
    (sym_extension_definition, STATE 925), (sym_mlir_region, STATE 925),
    (sym_comptime_statement, STATE 925), (sym_if_statement, STATE 925),
    (sym_match_statement, STATE 925), (sym_for_statement, STATE 925),
    (sym_while_statement, STATE 925), (sym_try_statement, STATE 925),
    (sym_with_statement, STATE 925), (sym_function_definition, STATE 925),
    (sym_global_statement, STATE 11814), (sym_nonlocal_statement, STATE 11814),
    (sym_exec_statement, STATE 11814), (sym_type_alias_statement, STATE 11814),
    (sym_parameterized_alias_statement, STATE 11814), (sym_class_definition, STATE 925),
    (sym_trait_definition, STATE 925), (sym_decorated_definition, STATE 925),
    (sym_decorator, STATE 3670), (sym_block, STATE 5000), (sym_pattern, STATE 8086),
    (sym_tuple_pattern, STATE 8101), (sym_list_pattern, STATE 8101),
    (sym_list_splat_pattern, STATE 6819), (sym_as_pattern, STATE 7969),
    (sym_expression, STATE 9883), (sym_primary_expression, STATE 7326),
    (sym_comptime_expression, STATE 7017), (sym_transfer_expression, STATE 7017),
    (sym_not_operator, STATE 7969), (sym_boolean_operator, STATE 7969),
    (sym_binary_operator, STATE 7017), (sym_unary_operator, STATE 7017),
    (sym_comparison_operator, STATE 7969), (sym_lambda, STATE 7969),
    (sym_assignment, STATE 12425), (sym_augmented_assignment, STATE 12425),
    (sym_pattern_list, STATE 8578), (sym_yield, STATE 12425), (sym_attribute, STATE 6836),
    (sym_subscript, STATE 6838), (sym_call, STATE 6845), (sym_mlir_type, STATE 7017),
    (sym_list, STATE 7017), (sym_set, STATE 7017), (sym_tuple, STATE 7017),
    (sym_dictionary, STATE 7017), (sym_struct_literal, STATE 7017),
    (sym_list_comprehension, STATE 7017), (sym_dictionary_comprehension, STATE 7017),
    (sym_set_comprehension, STATE 7017), (sym_generator_expression, STATE 7017),
    (sym_parenthesized_expression, STATE 7017), (sym_conditional_expression, STATE 7969),
    (sym_concatenated_string, STATE 7017), (sym_string, STATE 6751), (sym_await, STATE 7017),
    (aux_sym_module_repeat1, STATE 925), (aux_sym_decorated_definition_repeat1, STATE 3670),
    (sym_identifier, ACTIONS 9), (anon_sym_import, ACTIONS 11), (anon_sym_from, ACTIONS 13),
    (anon_sym_LPAREN, ACTIONS 15), (anon_sym_STAR, ACTIONS 17), (anon_sym_print, ACTIONS 19),
    (anon_sym_comptime, ACTIONS 99), (anon_sym_assert, ACTIONS 23),
    (anon_sym___comptime_assert, ACTIONS 25), (anon_sym_return, ACTIONS 27),
    (anon_sym_del, ACTIONS 29), (anon_sym_raise, ACTIONS 31), (anon_sym_pass, ACTIONS 33),
    (anon_sym_break, ACTIONS 35), (anon_sym_continue, ACTIONS 37),
    (anon_sym___extension, ACTIONS 101), (anon_sym___mlir_region, ACTIONS 103),
    (anon_sym_if, ACTIONS 105), (anon_sym_match, ACTIONS 107), (anon_sym_async, ACTIONS 109),
    (anon_sym_for, ACTIONS 111), (anon_sym_while, ACTIONS 113), (anon_sym_try, ACTIONS 115),
    (anon_sym_with, ACTIONS 117), (anon_sym_def, ACTIONS 119), (anon_sym_fn, ACTIONS 119),
    (anon_sym_LBRACK, ACTIONS 59), (anon_sym_LBRACE, ACTIONS 61), (anon_sym_global, ACTIONS 63),
    (anon_sym_nonlocal, ACTIONS 65), (anon_sym_exec, ACTIONS 67), (anon_sym_type, ACTIONS 69),
    (anon_sym_class, ACTIONS 121), (anon_sym_struct, ACTIONS 121), (anon_sym_mut, ACTIONS 73),
    (anon_sym_out, ACTIONS 73), (anon_sym_trait, ACTIONS 123), (anon_sym_AT, ACTIONS 77),
    (anon_sym_DASH, ACTIONS 79), (anon_sym_PLUS, ACTIONS 79), (anon_sym_ref, ACTIONS 81),
    (anon_sym_var, ACTIONS 81), (anon_sym_not, ACTIONS 83), (anon_sym_TILDE, ACTIONS 79),
    (anon_sym_lambda, ACTIONS 85), (anon_sym_yield, ACTIONS 87), (sym_ellipsis, ACTIONS 89),
    (anon_sym___mlir_type, ACTIONS 91), (sym_integer, ACTIONS 93), (sym_float, ACTIONS 89),
    (anon_sym_await, ACTIONS 95), (sym_true, ACTIONS 93), (sym_false, ACTIONS 93),
    (sym_none, ACTIONS 93), (sym_comment, ACTIONS 3), (sym_line_continuation, ACTIONS 3),
    (sym__dedent, ACTIONS 129), (sym_string_start, ACTIONS 97)]"

definition parse_table_161 :: "(nat \<times> nat) list" where "parse_table_161 = [
    (sym__statement, STATE 925), (sym__simple_statements, STATE 925),
    (sym_import_statement, STATE 11814), (sym_future_import_statement, STATE 11814),
    (sym_import_from_statement, STATE 11814), (sym_print_statement, STATE 11814),
    (sym_assert_statement, STATE 11814), (sym_comptime_assert_statement, STATE 11814),
    (sym_expression_statement, STATE 11814), (sym_tuple_expression, STATE 12425),
    (sym_named_expression, STATE 7969), (sym__named_expression_lhs, STATE 12752),
    (sym_return_statement, STATE 11814), (sym_delete_statement, STATE 11814),
    (sym_raise_statement, STATE 11814), (sym_pass_statement, STATE 11814),
    (sym_break_statement, STATE 11814), (sym_continue_statement, STATE 11814),
    (sym_extension_definition, STATE 925), (sym_mlir_region, STATE 925),
    (sym_comptime_statement, STATE 925), (sym_if_statement, STATE 925),
    (sym_match_statement, STATE 925), (sym_for_statement, STATE 925),
    (sym_while_statement, STATE 925), (sym_try_statement, STATE 925),
    (sym_with_statement, STATE 925), (sym_function_definition, STATE 925),
    (sym_global_statement, STATE 11814), (sym_nonlocal_statement, STATE 11814),
    (sym_exec_statement, STATE 11814), (sym_type_alias_statement, STATE 11814),
    (sym_parameterized_alias_statement, STATE 11814), (sym_class_definition, STATE 925),
    (sym_trait_definition, STATE 925), (sym_decorated_definition, STATE 925),
    (sym_decorator, STATE 3670), (sym_block, STATE 5001), (sym_pattern, STATE 8086),
    (sym_tuple_pattern, STATE 8101), (sym_list_pattern, STATE 8101),
    (sym_list_splat_pattern, STATE 6819), (sym_as_pattern, STATE 7969),
    (sym_expression, STATE 9883), (sym_primary_expression, STATE 7326),
    (sym_comptime_expression, STATE 7017), (sym_transfer_expression, STATE 7017),
    (sym_not_operator, STATE 7969), (sym_boolean_operator, STATE 7969),
    (sym_binary_operator, STATE 7017), (sym_unary_operator, STATE 7017),
    (sym_comparison_operator, STATE 7969), (sym_lambda, STATE 7969),
    (sym_assignment, STATE 12425), (sym_augmented_assignment, STATE 12425),
    (sym_pattern_list, STATE 8578), (sym_yield, STATE 12425), (sym_attribute, STATE 6836),
    (sym_subscript, STATE 6838), (sym_call, STATE 6845), (sym_mlir_type, STATE 7017),
    (sym_list, STATE 7017), (sym_set, STATE 7017), (sym_tuple, STATE 7017),
    (sym_dictionary, STATE 7017), (sym_struct_literal, STATE 7017),
    (sym_list_comprehension, STATE 7017), (sym_dictionary_comprehension, STATE 7017),
    (sym_set_comprehension, STATE 7017), (sym_generator_expression, STATE 7017),
    (sym_parenthesized_expression, STATE 7017), (sym_conditional_expression, STATE 7969),
    (sym_concatenated_string, STATE 7017), (sym_string, STATE 6751), (sym_await, STATE 7017),
    (aux_sym_module_repeat1, STATE 925), (aux_sym_decorated_definition_repeat1, STATE 3670),
    (sym_identifier, ACTIONS 9), (anon_sym_import, ACTIONS 11), (anon_sym_from, ACTIONS 13),
    (anon_sym_LPAREN, ACTIONS 15), (anon_sym_STAR, ACTIONS 17), (anon_sym_print, ACTIONS 19),
    (anon_sym_comptime, ACTIONS 99), (anon_sym_assert, ACTIONS 23),
    (anon_sym___comptime_assert, ACTIONS 25), (anon_sym_return, ACTIONS 27),
    (anon_sym_del, ACTIONS 29), (anon_sym_raise, ACTIONS 31), (anon_sym_pass, ACTIONS 33),
    (anon_sym_break, ACTIONS 35), (anon_sym_continue, ACTIONS 37),
    (anon_sym___extension, ACTIONS 101), (anon_sym___mlir_region, ACTIONS 103),
    (anon_sym_if, ACTIONS 105), (anon_sym_match, ACTIONS 107), (anon_sym_async, ACTIONS 109),
    (anon_sym_for, ACTIONS 111), (anon_sym_while, ACTIONS 113), (anon_sym_try, ACTIONS 115),
    (anon_sym_with, ACTIONS 117), (anon_sym_def, ACTIONS 119), (anon_sym_fn, ACTIONS 119),
    (anon_sym_LBRACK, ACTIONS 59), (anon_sym_LBRACE, ACTIONS 61), (anon_sym_global, ACTIONS 63),
    (anon_sym_nonlocal, ACTIONS 65), (anon_sym_exec, ACTIONS 67), (anon_sym_type, ACTIONS 69),
    (anon_sym_class, ACTIONS 121), (anon_sym_struct, ACTIONS 121), (anon_sym_mut, ACTIONS 73),
    (anon_sym_out, ACTIONS 73), (anon_sym_trait, ACTIONS 123), (anon_sym_AT, ACTIONS 77),
    (anon_sym_DASH, ACTIONS 79), (anon_sym_PLUS, ACTIONS 79), (anon_sym_ref, ACTIONS 81),
    (anon_sym_var, ACTIONS 81), (anon_sym_not, ACTIONS 83), (anon_sym_TILDE, ACTIONS 79),
    (anon_sym_lambda, ACTIONS 85), (anon_sym_yield, ACTIONS 87), (sym_ellipsis, ACTIONS 89),
    (anon_sym___mlir_type, ACTIONS 91), (sym_integer, ACTIONS 93), (sym_float, ACTIONS 89),
    (anon_sym_await, ACTIONS 95), (sym_true, ACTIONS 93), (sym_false, ACTIONS 93),
    (sym_none, ACTIONS 93), (sym_comment, ACTIONS 3), (sym_line_continuation, ACTIONS 3),
    (sym__dedent, ACTIONS 129), (sym_string_start, ACTIONS 97)]"

definition parse_table_162 :: "(nat \<times> nat) list" where "parse_table_162 = [
    (sym__statement, STATE 925), (sym__simple_statements, STATE 925),
    (sym_import_statement, STATE 11814), (sym_future_import_statement, STATE 11814),
    (sym_import_from_statement, STATE 11814), (sym_print_statement, STATE 11814),
    (sym_assert_statement, STATE 11814), (sym_comptime_assert_statement, STATE 11814),
    (sym_expression_statement, STATE 11814), (sym_tuple_expression, STATE 12425),
    (sym_named_expression, STATE 7969), (sym__named_expression_lhs, STATE 12752),
    (sym_return_statement, STATE 11814), (sym_delete_statement, STATE 11814),
    (sym_raise_statement, STATE 11814), (sym_pass_statement, STATE 11814),
    (sym_break_statement, STATE 11814), (sym_continue_statement, STATE 11814),
    (sym_extension_definition, STATE 925), (sym_mlir_region, STATE 925),
    (sym_comptime_statement, STATE 925), (sym_if_statement, STATE 925),
    (sym_match_statement, STATE 925), (sym_for_statement, STATE 925),
    (sym_while_statement, STATE 925), (sym_try_statement, STATE 925),
    (sym_with_statement, STATE 925), (sym_function_definition, STATE 925),
    (sym_global_statement, STATE 11814), (sym_nonlocal_statement, STATE 11814),
    (sym_exec_statement, STATE 11814), (sym_type_alias_statement, STATE 11814),
    (sym_parameterized_alias_statement, STATE 11814), (sym_class_definition, STATE 925),
    (sym_trait_definition, STATE 925), (sym_decorated_definition, STATE 925),
    (sym_decorator, STATE 3670), (sym_block, STATE 5005), (sym_pattern, STATE 8086),
    (sym_tuple_pattern, STATE 8101), (sym_list_pattern, STATE 8101),
    (sym_list_splat_pattern, STATE 6819), (sym_as_pattern, STATE 7969),
    (sym_expression, STATE 9883), (sym_primary_expression, STATE 7326),
    (sym_comptime_expression, STATE 7017), (sym_transfer_expression, STATE 7017),
    (sym_not_operator, STATE 7969), (sym_boolean_operator, STATE 7969),
    (sym_binary_operator, STATE 7017), (sym_unary_operator, STATE 7017),
    (sym_comparison_operator, STATE 7969), (sym_lambda, STATE 7969),
    (sym_assignment, STATE 12425), (sym_augmented_assignment, STATE 12425),
    (sym_pattern_list, STATE 8578), (sym_yield, STATE 12425), (sym_attribute, STATE 6836),
    (sym_subscript, STATE 6838), (sym_call, STATE 6845), (sym_mlir_type, STATE 7017),
    (sym_list, STATE 7017), (sym_set, STATE 7017), (sym_tuple, STATE 7017),
    (sym_dictionary, STATE 7017), (sym_struct_literal, STATE 7017),
    (sym_list_comprehension, STATE 7017), (sym_dictionary_comprehension, STATE 7017),
    (sym_set_comprehension, STATE 7017), (sym_generator_expression, STATE 7017),
    (sym_parenthesized_expression, STATE 7017), (sym_conditional_expression, STATE 7969),
    (sym_concatenated_string, STATE 7017), (sym_string, STATE 6751), (sym_await, STATE 7017),
    (aux_sym_module_repeat1, STATE 925), (aux_sym_decorated_definition_repeat1, STATE 3670),
    (sym_identifier, ACTIONS 9), (anon_sym_import, ACTIONS 11), (anon_sym_from, ACTIONS 13),
    (anon_sym_LPAREN, ACTIONS 15), (anon_sym_STAR, ACTIONS 17), (anon_sym_print, ACTIONS 19),
    (anon_sym_comptime, ACTIONS 99), (anon_sym_assert, ACTIONS 23),
    (anon_sym___comptime_assert, ACTIONS 25), (anon_sym_return, ACTIONS 27),
    (anon_sym_del, ACTIONS 29), (anon_sym_raise, ACTIONS 31), (anon_sym_pass, ACTIONS 33),
    (anon_sym_break, ACTIONS 35), (anon_sym_continue, ACTIONS 37),
    (anon_sym___extension, ACTIONS 101), (anon_sym___mlir_region, ACTIONS 103),
    (anon_sym_if, ACTIONS 105), (anon_sym_match, ACTIONS 107), (anon_sym_async, ACTIONS 109),
    (anon_sym_for, ACTIONS 111), (anon_sym_while, ACTIONS 113), (anon_sym_try, ACTIONS 115),
    (anon_sym_with, ACTIONS 117), (anon_sym_def, ACTIONS 119), (anon_sym_fn, ACTIONS 119),
    (anon_sym_LBRACK, ACTIONS 59), (anon_sym_LBRACE, ACTIONS 61), (anon_sym_global, ACTIONS 63),
    (anon_sym_nonlocal, ACTIONS 65), (anon_sym_exec, ACTIONS 67), (anon_sym_type, ACTIONS 69),
    (anon_sym_class, ACTIONS 121), (anon_sym_struct, ACTIONS 121), (anon_sym_mut, ACTIONS 73),
    (anon_sym_out, ACTIONS 73), (anon_sym_trait, ACTIONS 123), (anon_sym_AT, ACTIONS 77),
    (anon_sym_DASH, ACTIONS 79), (anon_sym_PLUS, ACTIONS 79), (anon_sym_ref, ACTIONS 81),
    (anon_sym_var, ACTIONS 81), (anon_sym_not, ACTIONS 83), (anon_sym_TILDE, ACTIONS 79),
    (anon_sym_lambda, ACTIONS 85), (anon_sym_yield, ACTIONS 87), (sym_ellipsis, ACTIONS 89),
    (anon_sym___mlir_type, ACTIONS 91), (sym_integer, ACTIONS 93), (sym_float, ACTIONS 89),
    (anon_sym_await, ACTIONS 95), (sym_true, ACTIONS 93), (sym_false, ACTIONS 93),
    (sym_none, ACTIONS 93), (sym_comment, ACTIONS 3), (sym_line_continuation, ACTIONS 3),
    (sym__dedent, ACTIONS 129), (sym_string_start, ACTIONS 97)]"

definition parse_table_163 :: "(nat \<times> nat) list" where "parse_table_163 = [
    (sym__statement, STATE 925), (sym__simple_statements, STATE 925),
    (sym_import_statement, STATE 11814), (sym_future_import_statement, STATE 11814),
    (sym_import_from_statement, STATE 11814), (sym_print_statement, STATE 11814),
    (sym_assert_statement, STATE 11814), (sym_comptime_assert_statement, STATE 11814),
    (sym_expression_statement, STATE 11814), (sym_tuple_expression, STATE 12425),
    (sym_named_expression, STATE 7969), (sym__named_expression_lhs, STATE 12752),
    (sym_return_statement, STATE 11814), (sym_delete_statement, STATE 11814),
    (sym_raise_statement, STATE 11814), (sym_pass_statement, STATE 11814),
    (sym_break_statement, STATE 11814), (sym_continue_statement, STATE 11814),
    (sym_extension_definition, STATE 925), (sym_mlir_region, STATE 925),
    (sym_comptime_statement, STATE 925), (sym_if_statement, STATE 925),
    (sym_match_statement, STATE 925), (sym_for_statement, STATE 925),
    (sym_while_statement, STATE 925), (sym_try_statement, STATE 925),
    (sym_with_statement, STATE 925), (sym_function_definition, STATE 925),
    (sym_global_statement, STATE 11814), (sym_nonlocal_statement, STATE 11814),
    (sym_exec_statement, STATE 11814), (sym_type_alias_statement, STATE 11814),
    (sym_parameterized_alias_statement, STATE 11814), (sym_class_definition, STATE 925),
    (sym_trait_definition, STATE 925), (sym_decorated_definition, STATE 925),
    (sym_decorator, STATE 3670), (sym_block, STATE 5006), (sym_pattern, STATE 8086),
    (sym_tuple_pattern, STATE 8101), (sym_list_pattern, STATE 8101),
    (sym_list_splat_pattern, STATE 6819), (sym_as_pattern, STATE 7969),
    (sym_expression, STATE 9883), (sym_primary_expression, STATE 7326),
    (sym_comptime_expression, STATE 7017), (sym_transfer_expression, STATE 7017),
    (sym_not_operator, STATE 7969), (sym_boolean_operator, STATE 7969),
    (sym_binary_operator, STATE 7017), (sym_unary_operator, STATE 7017),
    (sym_comparison_operator, STATE 7969), (sym_lambda, STATE 7969),
    (sym_assignment, STATE 12425), (sym_augmented_assignment, STATE 12425),
    (sym_pattern_list, STATE 8578), (sym_yield, STATE 12425), (sym_attribute, STATE 6836),
    (sym_subscript, STATE 6838), (sym_call, STATE 6845), (sym_mlir_type, STATE 7017),
    (sym_list, STATE 7017), (sym_set, STATE 7017), (sym_tuple, STATE 7017),
    (sym_dictionary, STATE 7017), (sym_struct_literal, STATE 7017),
    (sym_list_comprehension, STATE 7017), (sym_dictionary_comprehension, STATE 7017),
    (sym_set_comprehension, STATE 7017), (sym_generator_expression, STATE 7017),
    (sym_parenthesized_expression, STATE 7017), (sym_conditional_expression, STATE 7969),
    (sym_concatenated_string, STATE 7017), (sym_string, STATE 6751), (sym_await, STATE 7017),
    (aux_sym_module_repeat1, STATE 925), (aux_sym_decorated_definition_repeat1, STATE 3670),
    (sym_identifier, ACTIONS 9), (anon_sym_import, ACTIONS 11), (anon_sym_from, ACTIONS 13),
    (anon_sym_LPAREN, ACTIONS 15), (anon_sym_STAR, ACTIONS 17), (anon_sym_print, ACTIONS 19),
    (anon_sym_comptime, ACTIONS 99), (anon_sym_assert, ACTIONS 23),
    (anon_sym___comptime_assert, ACTIONS 25), (anon_sym_return, ACTIONS 27),
    (anon_sym_del, ACTIONS 29), (anon_sym_raise, ACTIONS 31), (anon_sym_pass, ACTIONS 33),
    (anon_sym_break, ACTIONS 35), (anon_sym_continue, ACTIONS 37),
    (anon_sym___extension, ACTIONS 101), (anon_sym___mlir_region, ACTIONS 103),
    (anon_sym_if, ACTIONS 105), (anon_sym_match, ACTIONS 107), (anon_sym_async, ACTIONS 109),
    (anon_sym_for, ACTIONS 111), (anon_sym_while, ACTIONS 113), (anon_sym_try, ACTIONS 115),
    (anon_sym_with, ACTIONS 117), (anon_sym_def, ACTIONS 119), (anon_sym_fn, ACTIONS 119),
    (anon_sym_LBRACK, ACTIONS 59), (anon_sym_LBRACE, ACTIONS 61), (anon_sym_global, ACTIONS 63),
    (anon_sym_nonlocal, ACTIONS 65), (anon_sym_exec, ACTIONS 67), (anon_sym_type, ACTIONS 69),
    (anon_sym_class, ACTIONS 121), (anon_sym_struct, ACTIONS 121), (anon_sym_mut, ACTIONS 73),
    (anon_sym_out, ACTIONS 73), (anon_sym_trait, ACTIONS 123), (anon_sym_AT, ACTIONS 77),
    (anon_sym_DASH, ACTIONS 79), (anon_sym_PLUS, ACTIONS 79), (anon_sym_ref, ACTIONS 81),
    (anon_sym_var, ACTIONS 81), (anon_sym_not, ACTIONS 83), (anon_sym_TILDE, ACTIONS 79),
    (anon_sym_lambda, ACTIONS 85), (anon_sym_yield, ACTIONS 87), (sym_ellipsis, ACTIONS 89),
    (anon_sym___mlir_type, ACTIONS 91), (sym_integer, ACTIONS 93), (sym_float, ACTIONS 89),
    (anon_sym_await, ACTIONS 95), (sym_true, ACTIONS 93), (sym_false, ACTIONS 93),
    (sym_none, ACTIONS 93), (sym_comment, ACTIONS 3), (sym_line_continuation, ACTIONS 3),
    (sym__dedent, ACTIONS 129), (sym_string_start, ACTIONS 97)]"

definition parse_table_164 :: "(nat \<times> nat) list" where "parse_table_164 = [
    (sym__statement, STATE 925), (sym__simple_statements, STATE 925),
    (sym_import_statement, STATE 11814), (sym_future_import_statement, STATE 11814),
    (sym_import_from_statement, STATE 11814), (sym_print_statement, STATE 11814),
    (sym_assert_statement, STATE 11814), (sym_comptime_assert_statement, STATE 11814),
    (sym_expression_statement, STATE 11814), (sym_tuple_expression, STATE 12425),
    (sym_named_expression, STATE 7969), (sym__named_expression_lhs, STATE 12752),
    (sym_return_statement, STATE 11814), (sym_delete_statement, STATE 11814),
    (sym_raise_statement, STATE 11814), (sym_pass_statement, STATE 11814),
    (sym_break_statement, STATE 11814), (sym_continue_statement, STATE 11814),
    (sym_extension_definition, STATE 925), (sym_mlir_region, STATE 925),
    (sym_comptime_statement, STATE 925), (sym_if_statement, STATE 925),
    (sym_match_statement, STATE 925), (sym_for_statement, STATE 925),
    (sym_while_statement, STATE 925), (sym_try_statement, STATE 925),
    (sym_with_statement, STATE 925), (sym_function_definition, STATE 925),
    (sym_global_statement, STATE 11814), (sym_nonlocal_statement, STATE 11814),
    (sym_exec_statement, STATE 11814), (sym_type_alias_statement, STATE 11814),
    (sym_parameterized_alias_statement, STATE 11814), (sym_class_definition, STATE 925),
    (sym_trait_definition, STATE 925), (sym_decorated_definition, STATE 925),
    (sym_decorator, STATE 3670), (sym_block, STATE 5007), (sym_pattern, STATE 8086),
    (sym_tuple_pattern, STATE 8101), (sym_list_pattern, STATE 8101),
    (sym_list_splat_pattern, STATE 6819), (sym_as_pattern, STATE 7969),
    (sym_expression, STATE 9883), (sym_primary_expression, STATE 7326),
    (sym_comptime_expression, STATE 7017), (sym_transfer_expression, STATE 7017),
    (sym_not_operator, STATE 7969), (sym_boolean_operator, STATE 7969),
    (sym_binary_operator, STATE 7017), (sym_unary_operator, STATE 7017),
    (sym_comparison_operator, STATE 7969), (sym_lambda, STATE 7969),
    (sym_assignment, STATE 12425), (sym_augmented_assignment, STATE 12425),
    (sym_pattern_list, STATE 8578), (sym_yield, STATE 12425), (sym_attribute, STATE 6836),
    (sym_subscript, STATE 6838), (sym_call, STATE 6845), (sym_mlir_type, STATE 7017),
    (sym_list, STATE 7017), (sym_set, STATE 7017), (sym_tuple, STATE 7017),
    (sym_dictionary, STATE 7017), (sym_struct_literal, STATE 7017),
    (sym_list_comprehension, STATE 7017), (sym_dictionary_comprehension, STATE 7017),
    (sym_set_comprehension, STATE 7017), (sym_generator_expression, STATE 7017),
    (sym_parenthesized_expression, STATE 7017), (sym_conditional_expression, STATE 7969),
    (sym_concatenated_string, STATE 7017), (sym_string, STATE 6751), (sym_await, STATE 7017),
    (aux_sym_module_repeat1, STATE 925), (aux_sym_decorated_definition_repeat1, STATE 3670),
    (sym_identifier, ACTIONS 9), (anon_sym_import, ACTIONS 11), (anon_sym_from, ACTIONS 13),
    (anon_sym_LPAREN, ACTIONS 15), (anon_sym_STAR, ACTIONS 17), (anon_sym_print, ACTIONS 19),
    (anon_sym_comptime, ACTIONS 99), (anon_sym_assert, ACTIONS 23),
    (anon_sym___comptime_assert, ACTIONS 25), (anon_sym_return, ACTIONS 27),
    (anon_sym_del, ACTIONS 29), (anon_sym_raise, ACTIONS 31), (anon_sym_pass, ACTIONS 33),
    (anon_sym_break, ACTIONS 35), (anon_sym_continue, ACTIONS 37),
    (anon_sym___extension, ACTIONS 101), (anon_sym___mlir_region, ACTIONS 103),
    (anon_sym_if, ACTIONS 105), (anon_sym_match, ACTIONS 107), (anon_sym_async, ACTIONS 109),
    (anon_sym_for, ACTIONS 111), (anon_sym_while, ACTIONS 113), (anon_sym_try, ACTIONS 115),
    (anon_sym_with, ACTIONS 117), (anon_sym_def, ACTIONS 119), (anon_sym_fn, ACTIONS 119),
    (anon_sym_LBRACK, ACTIONS 59), (anon_sym_LBRACE, ACTIONS 61), (anon_sym_global, ACTIONS 63),
    (anon_sym_nonlocal, ACTIONS 65), (anon_sym_exec, ACTIONS 67), (anon_sym_type, ACTIONS 69),
    (anon_sym_class, ACTIONS 121), (anon_sym_struct, ACTIONS 121), (anon_sym_mut, ACTIONS 73),
    (anon_sym_out, ACTIONS 73), (anon_sym_trait, ACTIONS 123), (anon_sym_AT, ACTIONS 77),
    (anon_sym_DASH, ACTIONS 79), (anon_sym_PLUS, ACTIONS 79), (anon_sym_ref, ACTIONS 81),
    (anon_sym_var, ACTIONS 81), (anon_sym_not, ACTIONS 83), (anon_sym_TILDE, ACTIONS 79),
    (anon_sym_lambda, ACTIONS 85), (anon_sym_yield, ACTIONS 87), (sym_ellipsis, ACTIONS 89),
    (anon_sym___mlir_type, ACTIONS 91), (sym_integer, ACTIONS 93), (sym_float, ACTIONS 89),
    (anon_sym_await, ACTIONS 95), (sym_true, ACTIONS 93), (sym_false, ACTIONS 93),
    (sym_none, ACTIONS 93), (sym_comment, ACTIONS 3), (sym_line_continuation, ACTIONS 3),
    (sym__dedent, ACTIONS 129), (sym_string_start, ACTIONS 97)]"

definition parse_table_165 :: "(nat \<times> nat) list" where "parse_table_165 = [
    (sym__statement, STATE 925), (sym__simple_statements, STATE 925),
    (sym_import_statement, STATE 11814), (sym_future_import_statement, STATE 11814),
    (sym_import_from_statement, STATE 11814), (sym_print_statement, STATE 11814),
    (sym_assert_statement, STATE 11814), (sym_comptime_assert_statement, STATE 11814),
    (sym_expression_statement, STATE 11814), (sym_tuple_expression, STATE 12425),
    (sym_named_expression, STATE 7969), (sym__named_expression_lhs, STATE 12752),
    (sym_return_statement, STATE 11814), (sym_delete_statement, STATE 11814),
    (sym_raise_statement, STATE 11814), (sym_pass_statement, STATE 11814),
    (sym_break_statement, STATE 11814), (sym_continue_statement, STATE 11814),
    (sym_extension_definition, STATE 925), (sym_mlir_region, STATE 925),
    (sym_comptime_statement, STATE 925), (sym_if_statement, STATE 925),
    (sym_match_statement, STATE 925), (sym_for_statement, STATE 925),
    (sym_while_statement, STATE 925), (sym_try_statement, STATE 925),
    (sym_with_statement, STATE 925), (sym_function_definition, STATE 925),
    (sym_global_statement, STATE 11814), (sym_nonlocal_statement, STATE 11814),
    (sym_exec_statement, STATE 11814), (sym_type_alias_statement, STATE 11814),
    (sym_parameterized_alias_statement, STATE 11814), (sym_class_definition, STATE 925),
    (sym_trait_definition, STATE 925), (sym_decorated_definition, STATE 925),
    (sym_decorator, STATE 3670), (sym_block, STATE 5008), (sym_pattern, STATE 8086),
    (sym_tuple_pattern, STATE 8101), (sym_list_pattern, STATE 8101),
    (sym_list_splat_pattern, STATE 6819), (sym_as_pattern, STATE 7969),
    (sym_expression, STATE 9883), (sym_primary_expression, STATE 7326),
    (sym_comptime_expression, STATE 7017), (sym_transfer_expression, STATE 7017),
    (sym_not_operator, STATE 7969), (sym_boolean_operator, STATE 7969),
    (sym_binary_operator, STATE 7017), (sym_unary_operator, STATE 7017),
    (sym_comparison_operator, STATE 7969), (sym_lambda, STATE 7969),
    (sym_assignment, STATE 12425), (sym_augmented_assignment, STATE 12425),
    (sym_pattern_list, STATE 8578), (sym_yield, STATE 12425), (sym_attribute, STATE 6836),
    (sym_subscript, STATE 6838), (sym_call, STATE 6845), (sym_mlir_type, STATE 7017),
    (sym_list, STATE 7017), (sym_set, STATE 7017), (sym_tuple, STATE 7017),
    (sym_dictionary, STATE 7017), (sym_struct_literal, STATE 7017),
    (sym_list_comprehension, STATE 7017), (sym_dictionary_comprehension, STATE 7017),
    (sym_set_comprehension, STATE 7017), (sym_generator_expression, STATE 7017),
    (sym_parenthesized_expression, STATE 7017), (sym_conditional_expression, STATE 7969),
    (sym_concatenated_string, STATE 7017), (sym_string, STATE 6751), (sym_await, STATE 7017),
    (aux_sym_module_repeat1, STATE 925), (aux_sym_decorated_definition_repeat1, STATE 3670),
    (sym_identifier, ACTIONS 9), (anon_sym_import, ACTIONS 11), (anon_sym_from, ACTIONS 13),
    (anon_sym_LPAREN, ACTIONS 15), (anon_sym_STAR, ACTIONS 17), (anon_sym_print, ACTIONS 19),
    (anon_sym_comptime, ACTIONS 99), (anon_sym_assert, ACTIONS 23),
    (anon_sym___comptime_assert, ACTIONS 25), (anon_sym_return, ACTIONS 27),
    (anon_sym_del, ACTIONS 29), (anon_sym_raise, ACTIONS 31), (anon_sym_pass, ACTIONS 33),
    (anon_sym_break, ACTIONS 35), (anon_sym_continue, ACTIONS 37),
    (anon_sym___extension, ACTIONS 101), (anon_sym___mlir_region, ACTIONS 103),
    (anon_sym_if, ACTIONS 105), (anon_sym_match, ACTIONS 107), (anon_sym_async, ACTIONS 109),
    (anon_sym_for, ACTIONS 111), (anon_sym_while, ACTIONS 113), (anon_sym_try, ACTIONS 115),
    (anon_sym_with, ACTIONS 117), (anon_sym_def, ACTIONS 119), (anon_sym_fn, ACTIONS 119),
    (anon_sym_LBRACK, ACTIONS 59), (anon_sym_LBRACE, ACTIONS 61), (anon_sym_global, ACTIONS 63),
    (anon_sym_nonlocal, ACTIONS 65), (anon_sym_exec, ACTIONS 67), (anon_sym_type, ACTIONS 69),
    (anon_sym_class, ACTIONS 121), (anon_sym_struct, ACTIONS 121), (anon_sym_mut, ACTIONS 73),
    (anon_sym_out, ACTIONS 73), (anon_sym_trait, ACTIONS 123), (anon_sym_AT, ACTIONS 77),
    (anon_sym_DASH, ACTIONS 79), (anon_sym_PLUS, ACTIONS 79), (anon_sym_ref, ACTIONS 81),
    (anon_sym_var, ACTIONS 81), (anon_sym_not, ACTIONS 83), (anon_sym_TILDE, ACTIONS 79),
    (anon_sym_lambda, ACTIONS 85), (anon_sym_yield, ACTIONS 87), (sym_ellipsis, ACTIONS 89),
    (anon_sym___mlir_type, ACTIONS 91), (sym_integer, ACTIONS 93), (sym_float, ACTIONS 89),
    (anon_sym_await, ACTIONS 95), (sym_true, ACTIONS 93), (sym_false, ACTIONS 93),
    (sym_none, ACTIONS 93), (sym_comment, ACTIONS 3), (sym_line_continuation, ACTIONS 3),
    (sym__dedent, ACTIONS 129), (sym_string_start, ACTIONS 97)]"

definition parse_table_166 :: "(nat \<times> nat) list" where "parse_table_166 = [
    (sym__statement, STATE 925), (sym__simple_statements, STATE 925),
    (sym_import_statement, STATE 11814), (sym_future_import_statement, STATE 11814),
    (sym_import_from_statement, STATE 11814), (sym_print_statement, STATE 11814),
    (sym_assert_statement, STATE 11814), (sym_comptime_assert_statement, STATE 11814),
    (sym_expression_statement, STATE 11814), (sym_tuple_expression, STATE 12425),
    (sym_named_expression, STATE 7969), (sym__named_expression_lhs, STATE 12752),
    (sym_return_statement, STATE 11814), (sym_delete_statement, STATE 11814),
    (sym_raise_statement, STATE 11814), (sym_pass_statement, STATE 11814),
    (sym_break_statement, STATE 11814), (sym_continue_statement, STATE 11814),
    (sym_extension_definition, STATE 925), (sym_mlir_region, STATE 925),
    (sym_comptime_statement, STATE 925), (sym_if_statement, STATE 925),
    (sym_match_statement, STATE 925), (sym_for_statement, STATE 925),
    (sym_while_statement, STATE 925), (sym_try_statement, STATE 925),
    (sym_with_statement, STATE 925), (sym_function_definition, STATE 925),
    (sym_global_statement, STATE 11814), (sym_nonlocal_statement, STATE 11814),
    (sym_exec_statement, STATE 11814), (sym_type_alias_statement, STATE 11814),
    (sym_parameterized_alias_statement, STATE 11814), (sym_class_definition, STATE 925),
    (sym_trait_definition, STATE 925), (sym_decorated_definition, STATE 925),
    (sym_decorator, STATE 3670), (sym_block, STATE 5012), (sym_pattern, STATE 8086),
    (sym_tuple_pattern, STATE 8101), (sym_list_pattern, STATE 8101),
    (sym_list_splat_pattern, STATE 6819), (sym_as_pattern, STATE 7969),
    (sym_expression, STATE 9883), (sym_primary_expression, STATE 7326),
    (sym_comptime_expression, STATE 7017), (sym_transfer_expression, STATE 7017),
    (sym_not_operator, STATE 7969), (sym_boolean_operator, STATE 7969),
    (sym_binary_operator, STATE 7017), (sym_unary_operator, STATE 7017),
    (sym_comparison_operator, STATE 7969), (sym_lambda, STATE 7969),
    (sym_assignment, STATE 12425), (sym_augmented_assignment, STATE 12425),
    (sym_pattern_list, STATE 8578), (sym_yield, STATE 12425), (sym_attribute, STATE 6836),
    (sym_subscript, STATE 6838), (sym_call, STATE 6845), (sym_mlir_type, STATE 7017),
    (sym_list, STATE 7017), (sym_set, STATE 7017), (sym_tuple, STATE 7017),
    (sym_dictionary, STATE 7017), (sym_struct_literal, STATE 7017),
    (sym_list_comprehension, STATE 7017), (sym_dictionary_comprehension, STATE 7017),
    (sym_set_comprehension, STATE 7017), (sym_generator_expression, STATE 7017),
    (sym_parenthesized_expression, STATE 7017), (sym_conditional_expression, STATE 7969),
    (sym_concatenated_string, STATE 7017), (sym_string, STATE 6751), (sym_await, STATE 7017),
    (aux_sym_module_repeat1, STATE 925), (aux_sym_decorated_definition_repeat1, STATE 3670),
    (sym_identifier, ACTIONS 9), (anon_sym_import, ACTIONS 11), (anon_sym_from, ACTIONS 13),
    (anon_sym_LPAREN, ACTIONS 15), (anon_sym_STAR, ACTIONS 17), (anon_sym_print, ACTIONS 19),
    (anon_sym_comptime, ACTIONS 99), (anon_sym_assert, ACTIONS 23),
    (anon_sym___comptime_assert, ACTIONS 25), (anon_sym_return, ACTIONS 27),
    (anon_sym_del, ACTIONS 29), (anon_sym_raise, ACTIONS 31), (anon_sym_pass, ACTIONS 33),
    (anon_sym_break, ACTIONS 35), (anon_sym_continue, ACTIONS 37),
    (anon_sym___extension, ACTIONS 101), (anon_sym___mlir_region, ACTIONS 103),
    (anon_sym_if, ACTIONS 105), (anon_sym_match, ACTIONS 107), (anon_sym_async, ACTIONS 109),
    (anon_sym_for, ACTIONS 111), (anon_sym_while, ACTIONS 113), (anon_sym_try, ACTIONS 115),
    (anon_sym_with, ACTIONS 117), (anon_sym_def, ACTIONS 119), (anon_sym_fn, ACTIONS 119),
    (anon_sym_LBRACK, ACTIONS 59), (anon_sym_LBRACE, ACTIONS 61), (anon_sym_global, ACTIONS 63),
    (anon_sym_nonlocal, ACTIONS 65), (anon_sym_exec, ACTIONS 67), (anon_sym_type, ACTIONS 69),
    (anon_sym_class, ACTIONS 121), (anon_sym_struct, ACTIONS 121), (anon_sym_mut, ACTIONS 73),
    (anon_sym_out, ACTIONS 73), (anon_sym_trait, ACTIONS 123), (anon_sym_AT, ACTIONS 77),
    (anon_sym_DASH, ACTIONS 79), (anon_sym_PLUS, ACTIONS 79), (anon_sym_ref, ACTIONS 81),
    (anon_sym_var, ACTIONS 81), (anon_sym_not, ACTIONS 83), (anon_sym_TILDE, ACTIONS 79),
    (anon_sym_lambda, ACTIONS 85), (anon_sym_yield, ACTIONS 87), (sym_ellipsis, ACTIONS 89),
    (anon_sym___mlir_type, ACTIONS 91), (sym_integer, ACTIONS 93), (sym_float, ACTIONS 89),
    (anon_sym_await, ACTIONS 95), (sym_true, ACTIONS 93), (sym_false, ACTIONS 93),
    (sym_none, ACTIONS 93), (sym_comment, ACTIONS 3), (sym_line_continuation, ACTIONS 3),
    (sym__dedent, ACTIONS 129), (sym_string_start, ACTIONS 97)]"

definition parse_table_167 :: "(nat \<times> nat) list" where "parse_table_167 = [
    (sym__statement, STATE 925), (sym__simple_statements, STATE 925),
    (sym_import_statement, STATE 11814), (sym_future_import_statement, STATE 11814),
    (sym_import_from_statement, STATE 11814), (sym_print_statement, STATE 11814),
    (sym_assert_statement, STATE 11814), (sym_comptime_assert_statement, STATE 11814),
    (sym_expression_statement, STATE 11814), (sym_tuple_expression, STATE 12425),
    (sym_named_expression, STATE 7969), (sym__named_expression_lhs, STATE 12752),
    (sym_return_statement, STATE 11814), (sym_delete_statement, STATE 11814),
    (sym_raise_statement, STATE 11814), (sym_pass_statement, STATE 11814),
    (sym_break_statement, STATE 11814), (sym_continue_statement, STATE 11814),
    (sym_extension_definition, STATE 925), (sym_mlir_region, STATE 925),
    (sym_comptime_statement, STATE 925), (sym_if_statement, STATE 925),
    (sym_match_statement, STATE 925), (sym_for_statement, STATE 925),
    (sym_while_statement, STATE 925), (sym_try_statement, STATE 925),
    (sym_with_statement, STATE 925), (sym_function_definition, STATE 925),
    (sym_global_statement, STATE 11814), (sym_nonlocal_statement, STATE 11814),
    (sym_exec_statement, STATE 11814), (sym_type_alias_statement, STATE 11814),
    (sym_parameterized_alias_statement, STATE 11814), (sym_class_definition, STATE 925),
    (sym_trait_definition, STATE 925), (sym_decorated_definition, STATE 925),
    (sym_decorator, STATE 3670), (sym_block, STATE 5013), (sym_pattern, STATE 8086),
    (sym_tuple_pattern, STATE 8101), (sym_list_pattern, STATE 8101),
    (sym_list_splat_pattern, STATE 6819), (sym_as_pattern, STATE 7969),
    (sym_expression, STATE 9883), (sym_primary_expression, STATE 7326),
    (sym_comptime_expression, STATE 7017), (sym_transfer_expression, STATE 7017),
    (sym_not_operator, STATE 7969), (sym_boolean_operator, STATE 7969),
    (sym_binary_operator, STATE 7017), (sym_unary_operator, STATE 7017),
    (sym_comparison_operator, STATE 7969), (sym_lambda, STATE 7969),
    (sym_assignment, STATE 12425), (sym_augmented_assignment, STATE 12425),
    (sym_pattern_list, STATE 8578), (sym_yield, STATE 12425), (sym_attribute, STATE 6836),
    (sym_subscript, STATE 6838), (sym_call, STATE 6845), (sym_mlir_type, STATE 7017),
    (sym_list, STATE 7017), (sym_set, STATE 7017), (sym_tuple, STATE 7017),
    (sym_dictionary, STATE 7017), (sym_struct_literal, STATE 7017),
    (sym_list_comprehension, STATE 7017), (sym_dictionary_comprehension, STATE 7017),
    (sym_set_comprehension, STATE 7017), (sym_generator_expression, STATE 7017),
    (sym_parenthesized_expression, STATE 7017), (sym_conditional_expression, STATE 7969),
    (sym_concatenated_string, STATE 7017), (sym_string, STATE 6751), (sym_await, STATE 7017),
    (aux_sym_module_repeat1, STATE 925), (aux_sym_decorated_definition_repeat1, STATE 3670),
    (sym_identifier, ACTIONS 9), (anon_sym_import, ACTIONS 11), (anon_sym_from, ACTIONS 13),
    (anon_sym_LPAREN, ACTIONS 15), (anon_sym_STAR, ACTIONS 17), (anon_sym_print, ACTIONS 19),
    (anon_sym_comptime, ACTIONS 99), (anon_sym_assert, ACTIONS 23),
    (anon_sym___comptime_assert, ACTIONS 25), (anon_sym_return, ACTIONS 27),
    (anon_sym_del, ACTIONS 29), (anon_sym_raise, ACTIONS 31), (anon_sym_pass, ACTIONS 33),
    (anon_sym_break, ACTIONS 35), (anon_sym_continue, ACTIONS 37),
    (anon_sym___extension, ACTIONS 101), (anon_sym___mlir_region, ACTIONS 103),
    (anon_sym_if, ACTIONS 105), (anon_sym_match, ACTIONS 107), (anon_sym_async, ACTIONS 109),
    (anon_sym_for, ACTIONS 111), (anon_sym_while, ACTIONS 113), (anon_sym_try, ACTIONS 115),
    (anon_sym_with, ACTIONS 117), (anon_sym_def, ACTIONS 119), (anon_sym_fn, ACTIONS 119),
    (anon_sym_LBRACK, ACTIONS 59), (anon_sym_LBRACE, ACTIONS 61), (anon_sym_global, ACTIONS 63),
    (anon_sym_nonlocal, ACTIONS 65), (anon_sym_exec, ACTIONS 67), (anon_sym_type, ACTIONS 69),
    (anon_sym_class, ACTIONS 121), (anon_sym_struct, ACTIONS 121), (anon_sym_mut, ACTIONS 73),
    (anon_sym_out, ACTIONS 73), (anon_sym_trait, ACTIONS 123), (anon_sym_AT, ACTIONS 77),
    (anon_sym_DASH, ACTIONS 79), (anon_sym_PLUS, ACTIONS 79), (anon_sym_ref, ACTIONS 81),
    (anon_sym_var, ACTIONS 81), (anon_sym_not, ACTIONS 83), (anon_sym_TILDE, ACTIONS 79),
    (anon_sym_lambda, ACTIONS 85), (anon_sym_yield, ACTIONS 87), (sym_ellipsis, ACTIONS 89),
    (anon_sym___mlir_type, ACTIONS 91), (sym_integer, ACTIONS 93), (sym_float, ACTIONS 89),
    (anon_sym_await, ACTIONS 95), (sym_true, ACTIONS 93), (sym_false, ACTIONS 93),
    (sym_none, ACTIONS 93), (sym_comment, ACTIONS 3), (sym_line_continuation, ACTIONS 3),
    (sym__dedent, ACTIONS 129), (sym_string_start, ACTIONS 97)]"

definition parse_table_168 :: "(nat \<times> nat) list" where "parse_table_168 = [
    (sym__statement, STATE 925), (sym__simple_statements, STATE 925),
    (sym_import_statement, STATE 11814), (sym_future_import_statement, STATE 11814),
    (sym_import_from_statement, STATE 11814), (sym_print_statement, STATE 11814),
    (sym_assert_statement, STATE 11814), (sym_comptime_assert_statement, STATE 11814),
    (sym_expression_statement, STATE 11814), (sym_tuple_expression, STATE 12425),
    (sym_named_expression, STATE 7969), (sym__named_expression_lhs, STATE 12752),
    (sym_return_statement, STATE 11814), (sym_delete_statement, STATE 11814),
    (sym_raise_statement, STATE 11814), (sym_pass_statement, STATE 11814),
    (sym_break_statement, STATE 11814), (sym_continue_statement, STATE 11814),
    (sym_extension_definition, STATE 925), (sym_mlir_region, STATE 925),
    (sym_comptime_statement, STATE 925), (sym_if_statement, STATE 925),
    (sym_match_statement, STATE 925), (sym_for_statement, STATE 925),
    (sym_while_statement, STATE 925), (sym_try_statement, STATE 925),
    (sym_with_statement, STATE 925), (sym_function_definition, STATE 925),
    (sym_global_statement, STATE 11814), (sym_nonlocal_statement, STATE 11814),
    (sym_exec_statement, STATE 11814), (sym_type_alias_statement, STATE 11814),
    (sym_parameterized_alias_statement, STATE 11814), (sym_class_definition, STATE 925),
    (sym_trait_definition, STATE 925), (sym_decorated_definition, STATE 925),
    (sym_decorator, STATE 3670), (sym_block, STATE 5015), (sym_pattern, STATE 8086),
    (sym_tuple_pattern, STATE 8101), (sym_list_pattern, STATE 8101),
    (sym_list_splat_pattern, STATE 6819), (sym_as_pattern, STATE 7969),
    (sym_expression, STATE 9883), (sym_primary_expression, STATE 7326),
    (sym_comptime_expression, STATE 7017), (sym_transfer_expression, STATE 7017),
    (sym_not_operator, STATE 7969), (sym_boolean_operator, STATE 7969),
    (sym_binary_operator, STATE 7017), (sym_unary_operator, STATE 7017),
    (sym_comparison_operator, STATE 7969), (sym_lambda, STATE 7969),
    (sym_assignment, STATE 12425), (sym_augmented_assignment, STATE 12425),
    (sym_pattern_list, STATE 8578), (sym_yield, STATE 12425), (sym_attribute, STATE 6836),
    (sym_subscript, STATE 6838), (sym_call, STATE 6845), (sym_mlir_type, STATE 7017),
    (sym_list, STATE 7017), (sym_set, STATE 7017), (sym_tuple, STATE 7017),
    (sym_dictionary, STATE 7017), (sym_struct_literal, STATE 7017),
    (sym_list_comprehension, STATE 7017), (sym_dictionary_comprehension, STATE 7017),
    (sym_set_comprehension, STATE 7017), (sym_generator_expression, STATE 7017),
    (sym_parenthesized_expression, STATE 7017), (sym_conditional_expression, STATE 7969),
    (sym_concatenated_string, STATE 7017), (sym_string, STATE 6751), (sym_await, STATE 7017),
    (aux_sym_module_repeat1, STATE 925), (aux_sym_decorated_definition_repeat1, STATE 3670),
    (sym_identifier, ACTIONS 9), (anon_sym_import, ACTIONS 11), (anon_sym_from, ACTIONS 13),
    (anon_sym_LPAREN, ACTIONS 15), (anon_sym_STAR, ACTIONS 17), (anon_sym_print, ACTIONS 19),
    (anon_sym_comptime, ACTIONS 99), (anon_sym_assert, ACTIONS 23),
    (anon_sym___comptime_assert, ACTIONS 25), (anon_sym_return, ACTIONS 27),
    (anon_sym_del, ACTIONS 29), (anon_sym_raise, ACTIONS 31), (anon_sym_pass, ACTIONS 33),
    (anon_sym_break, ACTIONS 35), (anon_sym_continue, ACTIONS 37),
    (anon_sym___extension, ACTIONS 101), (anon_sym___mlir_region, ACTIONS 103),
    (anon_sym_if, ACTIONS 105), (anon_sym_match, ACTIONS 107), (anon_sym_async, ACTIONS 109),
    (anon_sym_for, ACTIONS 111), (anon_sym_while, ACTIONS 113), (anon_sym_try, ACTIONS 115),
    (anon_sym_with, ACTIONS 117), (anon_sym_def, ACTIONS 119), (anon_sym_fn, ACTIONS 119),
    (anon_sym_LBRACK, ACTIONS 59), (anon_sym_LBRACE, ACTIONS 61), (anon_sym_global, ACTIONS 63),
    (anon_sym_nonlocal, ACTIONS 65), (anon_sym_exec, ACTIONS 67), (anon_sym_type, ACTIONS 69),
    (anon_sym_class, ACTIONS 121), (anon_sym_struct, ACTIONS 121), (anon_sym_mut, ACTIONS 73),
    (anon_sym_out, ACTIONS 73), (anon_sym_trait, ACTIONS 123), (anon_sym_AT, ACTIONS 77),
    (anon_sym_DASH, ACTIONS 79), (anon_sym_PLUS, ACTIONS 79), (anon_sym_ref, ACTIONS 81),
    (anon_sym_var, ACTIONS 81), (anon_sym_not, ACTIONS 83), (anon_sym_TILDE, ACTIONS 79),
    (anon_sym_lambda, ACTIONS 85), (anon_sym_yield, ACTIONS 87), (sym_ellipsis, ACTIONS 89),
    (anon_sym___mlir_type, ACTIONS 91), (sym_integer, ACTIONS 93), (sym_float, ACTIONS 89),
    (anon_sym_await, ACTIONS 95), (sym_true, ACTIONS 93), (sym_false, ACTIONS 93),
    (sym_none, ACTIONS 93), (sym_comment, ACTIONS 3), (sym_line_continuation, ACTIONS 3),
    (sym__dedent, ACTIONS 129), (sym_string_start, ACTIONS 97)]"

definition parse_table_169 :: "(nat \<times> nat) list" where "parse_table_169 = [
    (sym__statement, STATE 925), (sym__simple_statements, STATE 925),
    (sym_import_statement, STATE 11814), (sym_future_import_statement, STATE 11814),
    (sym_import_from_statement, STATE 11814), (sym_print_statement, STATE 11814),
    (sym_assert_statement, STATE 11814), (sym_comptime_assert_statement, STATE 11814),
    (sym_expression_statement, STATE 11814), (sym_tuple_expression, STATE 12425),
    (sym_named_expression, STATE 7969), (sym__named_expression_lhs, STATE 12752),
    (sym_return_statement, STATE 11814), (sym_delete_statement, STATE 11814),
    (sym_raise_statement, STATE 11814), (sym_pass_statement, STATE 11814),
    (sym_break_statement, STATE 11814), (sym_continue_statement, STATE 11814),
    (sym_extension_definition, STATE 925), (sym_mlir_region, STATE 925),
    (sym_comptime_statement, STATE 925), (sym_if_statement, STATE 925),
    (sym_match_statement, STATE 925), (sym_for_statement, STATE 925),
    (sym_while_statement, STATE 925), (sym_try_statement, STATE 925),
    (sym_with_statement, STATE 925), (sym_function_definition, STATE 925),
    (sym_global_statement, STATE 11814), (sym_nonlocal_statement, STATE 11814),
    (sym_exec_statement, STATE 11814), (sym_type_alias_statement, STATE 11814),
    (sym_parameterized_alias_statement, STATE 11814), (sym_class_definition, STATE 925),
    (sym_trait_definition, STATE 925), (sym_decorated_definition, STATE 925),
    (sym_decorator, STATE 3670), (sym_block, STATE 5019), (sym_pattern, STATE 8086),
    (sym_tuple_pattern, STATE 8101), (sym_list_pattern, STATE 8101),
    (sym_list_splat_pattern, STATE 6819), (sym_as_pattern, STATE 7969),
    (sym_expression, STATE 9883), (sym_primary_expression, STATE 7326),
    (sym_comptime_expression, STATE 7017), (sym_transfer_expression, STATE 7017),
    (sym_not_operator, STATE 7969), (sym_boolean_operator, STATE 7969),
    (sym_binary_operator, STATE 7017), (sym_unary_operator, STATE 7017),
    (sym_comparison_operator, STATE 7969), (sym_lambda, STATE 7969),
    (sym_assignment, STATE 12425), (sym_augmented_assignment, STATE 12425),
    (sym_pattern_list, STATE 8578), (sym_yield, STATE 12425), (sym_attribute, STATE 6836),
    (sym_subscript, STATE 6838), (sym_call, STATE 6845), (sym_mlir_type, STATE 7017),
    (sym_list, STATE 7017), (sym_set, STATE 7017), (sym_tuple, STATE 7017),
    (sym_dictionary, STATE 7017), (sym_struct_literal, STATE 7017),
    (sym_list_comprehension, STATE 7017), (sym_dictionary_comprehension, STATE 7017),
    (sym_set_comprehension, STATE 7017), (sym_generator_expression, STATE 7017),
    (sym_parenthesized_expression, STATE 7017), (sym_conditional_expression, STATE 7969),
    (sym_concatenated_string, STATE 7017), (sym_string, STATE 6751), (sym_await, STATE 7017),
    (aux_sym_module_repeat1, STATE 925), (aux_sym_decorated_definition_repeat1, STATE 3670),
    (sym_identifier, ACTIONS 9), (anon_sym_import, ACTIONS 11), (anon_sym_from, ACTIONS 13),
    (anon_sym_LPAREN, ACTIONS 15), (anon_sym_STAR, ACTIONS 17), (anon_sym_print, ACTIONS 19),
    (anon_sym_comptime, ACTIONS 99), (anon_sym_assert, ACTIONS 23),
    (anon_sym___comptime_assert, ACTIONS 25), (anon_sym_return, ACTIONS 27),
    (anon_sym_del, ACTIONS 29), (anon_sym_raise, ACTIONS 31), (anon_sym_pass, ACTIONS 33),
    (anon_sym_break, ACTIONS 35), (anon_sym_continue, ACTIONS 37),
    (anon_sym___extension, ACTIONS 101), (anon_sym___mlir_region, ACTIONS 103),
    (anon_sym_if, ACTIONS 105), (anon_sym_match, ACTIONS 107), (anon_sym_async, ACTIONS 109),
    (anon_sym_for, ACTIONS 111), (anon_sym_while, ACTIONS 113), (anon_sym_try, ACTIONS 115),
    (anon_sym_with, ACTIONS 117), (anon_sym_def, ACTIONS 119), (anon_sym_fn, ACTIONS 119),
    (anon_sym_LBRACK, ACTIONS 59), (anon_sym_LBRACE, ACTIONS 61), (anon_sym_global, ACTIONS 63),
    (anon_sym_nonlocal, ACTIONS 65), (anon_sym_exec, ACTIONS 67), (anon_sym_type, ACTIONS 69),
    (anon_sym_class, ACTIONS 121), (anon_sym_struct, ACTIONS 121), (anon_sym_mut, ACTIONS 73),
    (anon_sym_out, ACTIONS 73), (anon_sym_trait, ACTIONS 123), (anon_sym_AT, ACTIONS 77),
    (anon_sym_DASH, ACTIONS 79), (anon_sym_PLUS, ACTIONS 79), (anon_sym_ref, ACTIONS 81),
    (anon_sym_var, ACTIONS 81), (anon_sym_not, ACTIONS 83), (anon_sym_TILDE, ACTIONS 79),
    (anon_sym_lambda, ACTIONS 85), (anon_sym_yield, ACTIONS 87), (sym_ellipsis, ACTIONS 89),
    (anon_sym___mlir_type, ACTIONS 91), (sym_integer, ACTIONS 93), (sym_float, ACTIONS 89),
    (anon_sym_await, ACTIONS 95), (sym_true, ACTIONS 93), (sym_false, ACTIONS 93),
    (sym_none, ACTIONS 93), (sym_comment, ACTIONS 3), (sym_line_continuation, ACTIONS 3),
    (sym__dedent, ACTIONS 129), (sym_string_start, ACTIONS 97)]"

definition parse_table_170 :: "(nat \<times> nat) list" where "parse_table_170 = [
    (sym__statement, STATE 925), (sym__simple_statements, STATE 925),
    (sym_import_statement, STATE 11814), (sym_future_import_statement, STATE 11814),
    (sym_import_from_statement, STATE 11814), (sym_print_statement, STATE 11814),
    (sym_assert_statement, STATE 11814), (sym_comptime_assert_statement, STATE 11814),
    (sym_expression_statement, STATE 11814), (sym_tuple_expression, STATE 12425),
    (sym_named_expression, STATE 7969), (sym__named_expression_lhs, STATE 12752),
    (sym_return_statement, STATE 11814), (sym_delete_statement, STATE 11814),
    (sym_raise_statement, STATE 11814), (sym_pass_statement, STATE 11814),
    (sym_break_statement, STATE 11814), (sym_continue_statement, STATE 11814),
    (sym_extension_definition, STATE 925), (sym_mlir_region, STATE 925),
    (sym_comptime_statement, STATE 925), (sym_if_statement, STATE 925),
    (sym_match_statement, STATE 925), (sym_for_statement, STATE 925),
    (sym_while_statement, STATE 925), (sym_try_statement, STATE 925),
    (sym_with_statement, STATE 925), (sym_function_definition, STATE 925),
    (sym_global_statement, STATE 11814), (sym_nonlocal_statement, STATE 11814),
    (sym_exec_statement, STATE 11814), (sym_type_alias_statement, STATE 11814),
    (sym_parameterized_alias_statement, STATE 11814), (sym_class_definition, STATE 925),
    (sym_trait_definition, STATE 925), (sym_decorated_definition, STATE 925),
    (sym_decorator, STATE 3670), (sym_block, STATE 5023), (sym_pattern, STATE 8086),
    (sym_tuple_pattern, STATE 8101), (sym_list_pattern, STATE 8101),
    (sym_list_splat_pattern, STATE 6819), (sym_as_pattern, STATE 7969),
    (sym_expression, STATE 9883), (sym_primary_expression, STATE 7326),
    (sym_comptime_expression, STATE 7017), (sym_transfer_expression, STATE 7017),
    (sym_not_operator, STATE 7969), (sym_boolean_operator, STATE 7969),
    (sym_binary_operator, STATE 7017), (sym_unary_operator, STATE 7017),
    (sym_comparison_operator, STATE 7969), (sym_lambda, STATE 7969),
    (sym_assignment, STATE 12425), (sym_augmented_assignment, STATE 12425),
    (sym_pattern_list, STATE 8578), (sym_yield, STATE 12425), (sym_attribute, STATE 6836),
    (sym_subscript, STATE 6838), (sym_call, STATE 6845), (sym_mlir_type, STATE 7017),
    (sym_list, STATE 7017), (sym_set, STATE 7017), (sym_tuple, STATE 7017),
    (sym_dictionary, STATE 7017), (sym_struct_literal, STATE 7017),
    (sym_list_comprehension, STATE 7017), (sym_dictionary_comprehension, STATE 7017),
    (sym_set_comprehension, STATE 7017), (sym_generator_expression, STATE 7017),
    (sym_parenthesized_expression, STATE 7017), (sym_conditional_expression, STATE 7969),
    (sym_concatenated_string, STATE 7017), (sym_string, STATE 6751), (sym_await, STATE 7017),
    (aux_sym_module_repeat1, STATE 925), (aux_sym_decorated_definition_repeat1, STATE 3670),
    (sym_identifier, ACTIONS 9), (anon_sym_import, ACTIONS 11), (anon_sym_from, ACTIONS 13),
    (anon_sym_LPAREN, ACTIONS 15), (anon_sym_STAR, ACTIONS 17), (anon_sym_print, ACTIONS 19),
    (anon_sym_comptime, ACTIONS 99), (anon_sym_assert, ACTIONS 23),
    (anon_sym___comptime_assert, ACTIONS 25), (anon_sym_return, ACTIONS 27),
    (anon_sym_del, ACTIONS 29), (anon_sym_raise, ACTIONS 31), (anon_sym_pass, ACTIONS 33),
    (anon_sym_break, ACTIONS 35), (anon_sym_continue, ACTIONS 37),
    (anon_sym___extension, ACTIONS 101), (anon_sym___mlir_region, ACTIONS 103),
    (anon_sym_if, ACTIONS 105), (anon_sym_match, ACTIONS 107), (anon_sym_async, ACTIONS 109),
    (anon_sym_for, ACTIONS 111), (anon_sym_while, ACTIONS 113), (anon_sym_try, ACTIONS 115),
    (anon_sym_with, ACTIONS 117), (anon_sym_def, ACTIONS 119), (anon_sym_fn, ACTIONS 119),
    (anon_sym_LBRACK, ACTIONS 59), (anon_sym_LBRACE, ACTIONS 61), (anon_sym_global, ACTIONS 63),
    (anon_sym_nonlocal, ACTIONS 65), (anon_sym_exec, ACTIONS 67), (anon_sym_type, ACTIONS 69),
    (anon_sym_class, ACTIONS 121), (anon_sym_struct, ACTIONS 121), (anon_sym_mut, ACTIONS 73),
    (anon_sym_out, ACTIONS 73), (anon_sym_trait, ACTIONS 123), (anon_sym_AT, ACTIONS 77),
    (anon_sym_DASH, ACTIONS 79), (anon_sym_PLUS, ACTIONS 79), (anon_sym_ref, ACTIONS 81),
    (anon_sym_var, ACTIONS 81), (anon_sym_not, ACTIONS 83), (anon_sym_TILDE, ACTIONS 79),
    (anon_sym_lambda, ACTIONS 85), (anon_sym_yield, ACTIONS 87), (sym_ellipsis, ACTIONS 89),
    (anon_sym___mlir_type, ACTIONS 91), (sym_integer, ACTIONS 93), (sym_float, ACTIONS 89),
    (anon_sym_await, ACTIONS 95), (sym_true, ACTIONS 93), (sym_false, ACTIONS 93),
    (sym_none, ACTIONS 93), (sym_comment, ACTIONS 3), (sym_line_continuation, ACTIONS 3),
    (sym__dedent, ACTIONS 129), (sym_string_start, ACTIONS 97)]"

definition parse_table_171 :: "(nat \<times> nat) list" where "parse_table_171 = [
    (sym__statement, STATE 925), (sym__simple_statements, STATE 925),
    (sym_import_statement, STATE 11814), (sym_future_import_statement, STATE 11814),
    (sym_import_from_statement, STATE 11814), (sym_print_statement, STATE 11814),
    (sym_assert_statement, STATE 11814), (sym_comptime_assert_statement, STATE 11814),
    (sym_expression_statement, STATE 11814), (sym_tuple_expression, STATE 12425),
    (sym_named_expression, STATE 7969), (sym__named_expression_lhs, STATE 12752),
    (sym_return_statement, STATE 11814), (sym_delete_statement, STATE 11814),
    (sym_raise_statement, STATE 11814), (sym_pass_statement, STATE 11814),
    (sym_break_statement, STATE 11814), (sym_continue_statement, STATE 11814),
    (sym_extension_definition, STATE 925), (sym_mlir_region, STATE 925),
    (sym_comptime_statement, STATE 925), (sym_if_statement, STATE 925),
    (sym_match_statement, STATE 925), (sym_for_statement, STATE 925),
    (sym_while_statement, STATE 925), (sym_try_statement, STATE 925),
    (sym_with_statement, STATE 925), (sym_function_definition, STATE 925),
    (sym_global_statement, STATE 11814), (sym_nonlocal_statement, STATE 11814),
    (sym_exec_statement, STATE 11814), (sym_type_alias_statement, STATE 11814),
    (sym_parameterized_alias_statement, STATE 11814), (sym_class_definition, STATE 925),
    (sym_trait_definition, STATE 925), (sym_decorated_definition, STATE 925),
    (sym_decorator, STATE 3670), (sym_block, STATE 5036), (sym_pattern, STATE 8086),
    (sym_tuple_pattern, STATE 8101), (sym_list_pattern, STATE 8101),
    (sym_list_splat_pattern, STATE 6819), (sym_as_pattern, STATE 7969),
    (sym_expression, STATE 9883), (sym_primary_expression, STATE 7326),
    (sym_comptime_expression, STATE 7017), (sym_transfer_expression, STATE 7017),
    (sym_not_operator, STATE 7969), (sym_boolean_operator, STATE 7969),
    (sym_binary_operator, STATE 7017), (sym_unary_operator, STATE 7017),
    (sym_comparison_operator, STATE 7969), (sym_lambda, STATE 7969),
    (sym_assignment, STATE 12425), (sym_augmented_assignment, STATE 12425),
    (sym_pattern_list, STATE 8578), (sym_yield, STATE 12425), (sym_attribute, STATE 6836),
    (sym_subscript, STATE 6838), (sym_call, STATE 6845), (sym_mlir_type, STATE 7017),
    (sym_list, STATE 7017), (sym_set, STATE 7017), (sym_tuple, STATE 7017),
    (sym_dictionary, STATE 7017), (sym_struct_literal, STATE 7017),
    (sym_list_comprehension, STATE 7017), (sym_dictionary_comprehension, STATE 7017),
    (sym_set_comprehension, STATE 7017), (sym_generator_expression, STATE 7017),
    (sym_parenthesized_expression, STATE 7017), (sym_conditional_expression, STATE 7969),
    (sym_concatenated_string, STATE 7017), (sym_string, STATE 6751), (sym_await, STATE 7017),
    (aux_sym_module_repeat1, STATE 925), (aux_sym_decorated_definition_repeat1, STATE 3670),
    (sym_identifier, ACTIONS 9), (anon_sym_import, ACTIONS 11), (anon_sym_from, ACTIONS 13),
    (anon_sym_LPAREN, ACTIONS 15), (anon_sym_STAR, ACTIONS 17), (anon_sym_print, ACTIONS 19),
    (anon_sym_comptime, ACTIONS 99), (anon_sym_assert, ACTIONS 23),
    (anon_sym___comptime_assert, ACTIONS 25), (anon_sym_return, ACTIONS 27),
    (anon_sym_del, ACTIONS 29), (anon_sym_raise, ACTIONS 31), (anon_sym_pass, ACTIONS 33),
    (anon_sym_break, ACTIONS 35), (anon_sym_continue, ACTIONS 37),
    (anon_sym___extension, ACTIONS 101), (anon_sym___mlir_region, ACTIONS 103),
    (anon_sym_if, ACTIONS 105), (anon_sym_match, ACTIONS 107), (anon_sym_async, ACTIONS 109),
    (anon_sym_for, ACTIONS 111), (anon_sym_while, ACTIONS 113), (anon_sym_try, ACTIONS 115),
    (anon_sym_with, ACTIONS 117), (anon_sym_def, ACTIONS 119), (anon_sym_fn, ACTIONS 119),
    (anon_sym_LBRACK, ACTIONS 59), (anon_sym_LBRACE, ACTIONS 61), (anon_sym_global, ACTIONS 63),
    (anon_sym_nonlocal, ACTIONS 65), (anon_sym_exec, ACTIONS 67), (anon_sym_type, ACTIONS 69),
    (anon_sym_class, ACTIONS 121), (anon_sym_struct, ACTIONS 121), (anon_sym_mut, ACTIONS 73),
    (anon_sym_out, ACTIONS 73), (anon_sym_trait, ACTIONS 123), (anon_sym_AT, ACTIONS 77),
    (anon_sym_DASH, ACTIONS 79), (anon_sym_PLUS, ACTIONS 79), (anon_sym_ref, ACTIONS 81),
    (anon_sym_var, ACTIONS 81), (anon_sym_not, ACTIONS 83), (anon_sym_TILDE, ACTIONS 79),
    (anon_sym_lambda, ACTIONS 85), (anon_sym_yield, ACTIONS 87), (sym_ellipsis, ACTIONS 89),
    (anon_sym___mlir_type, ACTIONS 91), (sym_integer, ACTIONS 93), (sym_float, ACTIONS 89),
    (anon_sym_await, ACTIONS 95), (sym_true, ACTIONS 93), (sym_false, ACTIONS 93),
    (sym_none, ACTIONS 93), (sym_comment, ACTIONS 3), (sym_line_continuation, ACTIONS 3),
    (sym__dedent, ACTIONS 129), (sym_string_start, ACTIONS 97)]"

definition parse_table_172 :: "(nat \<times> nat) list" where "parse_table_172 = [
    (sym__statement, STATE 925), (sym__simple_statements, STATE 925),
    (sym_import_statement, STATE 11814), (sym_future_import_statement, STATE 11814),
    (sym_import_from_statement, STATE 11814), (sym_print_statement, STATE 11814),
    (sym_assert_statement, STATE 11814), (sym_comptime_assert_statement, STATE 11814),
    (sym_expression_statement, STATE 11814), (sym_tuple_expression, STATE 12425),
    (sym_named_expression, STATE 7969), (sym__named_expression_lhs, STATE 12752),
    (sym_return_statement, STATE 11814), (sym_delete_statement, STATE 11814),
    (sym_raise_statement, STATE 11814), (sym_pass_statement, STATE 11814),
    (sym_break_statement, STATE 11814), (sym_continue_statement, STATE 11814),
    (sym_extension_definition, STATE 925), (sym_mlir_region, STATE 925),
    (sym_comptime_statement, STATE 925), (sym_if_statement, STATE 925),
    (sym_match_statement, STATE 925), (sym_for_statement, STATE 925),
    (sym_while_statement, STATE 925), (sym_try_statement, STATE 925),
    (sym_with_statement, STATE 925), (sym_function_definition, STATE 925),
    (sym_global_statement, STATE 11814), (sym_nonlocal_statement, STATE 11814),
    (sym_exec_statement, STATE 11814), (sym_type_alias_statement, STATE 11814),
    (sym_parameterized_alias_statement, STATE 11814), (sym_class_definition, STATE 925),
    (sym_trait_definition, STATE 925), (sym_decorated_definition, STATE 925),
    (sym_decorator, STATE 3670), (sym_block, STATE 5039), (sym_pattern, STATE 8086),
    (sym_tuple_pattern, STATE 8101), (sym_list_pattern, STATE 8101),
    (sym_list_splat_pattern, STATE 6819), (sym_as_pattern, STATE 7969),
    (sym_expression, STATE 9883), (sym_primary_expression, STATE 7326),
    (sym_comptime_expression, STATE 7017), (sym_transfer_expression, STATE 7017),
    (sym_not_operator, STATE 7969), (sym_boolean_operator, STATE 7969),
    (sym_binary_operator, STATE 7017), (sym_unary_operator, STATE 7017),
    (sym_comparison_operator, STATE 7969), (sym_lambda, STATE 7969),
    (sym_assignment, STATE 12425), (sym_augmented_assignment, STATE 12425),
    (sym_pattern_list, STATE 8578), (sym_yield, STATE 12425), (sym_attribute, STATE 6836),
    (sym_subscript, STATE 6838), (sym_call, STATE 6845), (sym_mlir_type, STATE 7017),
    (sym_list, STATE 7017), (sym_set, STATE 7017), (sym_tuple, STATE 7017),
    (sym_dictionary, STATE 7017), (sym_struct_literal, STATE 7017),
    (sym_list_comprehension, STATE 7017), (sym_dictionary_comprehension, STATE 7017),
    (sym_set_comprehension, STATE 7017), (sym_generator_expression, STATE 7017),
    (sym_parenthesized_expression, STATE 7017), (sym_conditional_expression, STATE 7969),
    (sym_concatenated_string, STATE 7017), (sym_string, STATE 6751), (sym_await, STATE 7017),
    (aux_sym_module_repeat1, STATE 925), (aux_sym_decorated_definition_repeat1, STATE 3670),
    (sym_identifier, ACTIONS 9), (anon_sym_import, ACTIONS 11), (anon_sym_from, ACTIONS 13),
    (anon_sym_LPAREN, ACTIONS 15), (anon_sym_STAR, ACTIONS 17), (anon_sym_print, ACTIONS 19),
    (anon_sym_comptime, ACTIONS 99), (anon_sym_assert, ACTIONS 23),
    (anon_sym___comptime_assert, ACTIONS 25), (anon_sym_return, ACTIONS 27),
    (anon_sym_del, ACTIONS 29), (anon_sym_raise, ACTIONS 31), (anon_sym_pass, ACTIONS 33),
    (anon_sym_break, ACTIONS 35), (anon_sym_continue, ACTIONS 37),
    (anon_sym___extension, ACTIONS 101), (anon_sym___mlir_region, ACTIONS 103),
    (anon_sym_if, ACTIONS 105), (anon_sym_match, ACTIONS 107), (anon_sym_async, ACTIONS 109),
    (anon_sym_for, ACTIONS 111), (anon_sym_while, ACTIONS 113), (anon_sym_try, ACTIONS 115),
    (anon_sym_with, ACTIONS 117), (anon_sym_def, ACTIONS 119), (anon_sym_fn, ACTIONS 119),
    (anon_sym_LBRACK, ACTIONS 59), (anon_sym_LBRACE, ACTIONS 61), (anon_sym_global, ACTIONS 63),
    (anon_sym_nonlocal, ACTIONS 65), (anon_sym_exec, ACTIONS 67), (anon_sym_type, ACTIONS 69),
    (anon_sym_class, ACTIONS 121), (anon_sym_struct, ACTIONS 121), (anon_sym_mut, ACTIONS 73),
    (anon_sym_out, ACTIONS 73), (anon_sym_trait, ACTIONS 123), (anon_sym_AT, ACTIONS 77),
    (anon_sym_DASH, ACTIONS 79), (anon_sym_PLUS, ACTIONS 79), (anon_sym_ref, ACTIONS 81),
    (anon_sym_var, ACTIONS 81), (anon_sym_not, ACTIONS 83), (anon_sym_TILDE, ACTIONS 79),
    (anon_sym_lambda, ACTIONS 85), (anon_sym_yield, ACTIONS 87), (sym_ellipsis, ACTIONS 89),
    (anon_sym___mlir_type, ACTIONS 91), (sym_integer, ACTIONS 93), (sym_float, ACTIONS 89),
    (anon_sym_await, ACTIONS 95), (sym_true, ACTIONS 93), (sym_false, ACTIONS 93),
    (sym_none, ACTIONS 93), (sym_comment, ACTIONS 3), (sym_line_continuation, ACTIONS 3),
    (sym__dedent, ACTIONS 129), (sym_string_start, ACTIONS 97)]"

definition parse_table_173 :: "(nat \<times> nat) list" where "parse_table_173 = [
    (sym__statement, STATE 925), (sym__simple_statements, STATE 925),
    (sym_import_statement, STATE 11814), (sym_future_import_statement, STATE 11814),
    (sym_import_from_statement, STATE 11814), (sym_print_statement, STATE 11814),
    (sym_assert_statement, STATE 11814), (sym_comptime_assert_statement, STATE 11814),
    (sym_expression_statement, STATE 11814), (sym_tuple_expression, STATE 12425),
    (sym_named_expression, STATE 7969), (sym__named_expression_lhs, STATE 12752),
    (sym_return_statement, STATE 11814), (sym_delete_statement, STATE 11814),
    (sym_raise_statement, STATE 11814), (sym_pass_statement, STATE 11814),
    (sym_break_statement, STATE 11814), (sym_continue_statement, STATE 11814),
    (sym_extension_definition, STATE 925), (sym_mlir_region, STATE 925),
    (sym_comptime_statement, STATE 925), (sym_if_statement, STATE 925),
    (sym_match_statement, STATE 925), (sym_for_statement, STATE 925),
    (sym_while_statement, STATE 925), (sym_try_statement, STATE 925),
    (sym_with_statement, STATE 925), (sym_function_definition, STATE 925),
    (sym_global_statement, STATE 11814), (sym_nonlocal_statement, STATE 11814),
    (sym_exec_statement, STATE 11814), (sym_type_alias_statement, STATE 11814),
    (sym_parameterized_alias_statement, STATE 11814), (sym_class_definition, STATE 925),
    (sym_trait_definition, STATE 925), (sym_decorated_definition, STATE 925),
    (sym_decorator, STATE 3670), (sym_block, STATE 5044), (sym_pattern, STATE 8086),
    (sym_tuple_pattern, STATE 8101), (sym_list_pattern, STATE 8101),
    (sym_list_splat_pattern, STATE 6819), (sym_as_pattern, STATE 7969),
    (sym_expression, STATE 9883), (sym_primary_expression, STATE 7326),
    (sym_comptime_expression, STATE 7017), (sym_transfer_expression, STATE 7017),
    (sym_not_operator, STATE 7969), (sym_boolean_operator, STATE 7969),
    (sym_binary_operator, STATE 7017), (sym_unary_operator, STATE 7017),
    (sym_comparison_operator, STATE 7969), (sym_lambda, STATE 7969),
    (sym_assignment, STATE 12425), (sym_augmented_assignment, STATE 12425),
    (sym_pattern_list, STATE 8578), (sym_yield, STATE 12425), (sym_attribute, STATE 6836),
    (sym_subscript, STATE 6838), (sym_call, STATE 6845), (sym_mlir_type, STATE 7017),
    (sym_list, STATE 7017), (sym_set, STATE 7017), (sym_tuple, STATE 7017),
    (sym_dictionary, STATE 7017), (sym_struct_literal, STATE 7017),
    (sym_list_comprehension, STATE 7017), (sym_dictionary_comprehension, STATE 7017),
    (sym_set_comprehension, STATE 7017), (sym_generator_expression, STATE 7017),
    (sym_parenthesized_expression, STATE 7017), (sym_conditional_expression, STATE 7969),
    (sym_concatenated_string, STATE 7017), (sym_string, STATE 6751), (sym_await, STATE 7017),
    (aux_sym_module_repeat1, STATE 925), (aux_sym_decorated_definition_repeat1, STATE 3670),
    (sym_identifier, ACTIONS 9), (anon_sym_import, ACTIONS 11), (anon_sym_from, ACTIONS 13),
    (anon_sym_LPAREN, ACTIONS 15), (anon_sym_STAR, ACTIONS 17), (anon_sym_print, ACTIONS 19),
    (anon_sym_comptime, ACTIONS 99), (anon_sym_assert, ACTIONS 23),
    (anon_sym___comptime_assert, ACTIONS 25), (anon_sym_return, ACTIONS 27),
    (anon_sym_del, ACTIONS 29), (anon_sym_raise, ACTIONS 31), (anon_sym_pass, ACTIONS 33),
    (anon_sym_break, ACTIONS 35), (anon_sym_continue, ACTIONS 37),
    (anon_sym___extension, ACTIONS 101), (anon_sym___mlir_region, ACTIONS 103),
    (anon_sym_if, ACTIONS 105), (anon_sym_match, ACTIONS 107), (anon_sym_async, ACTIONS 109),
    (anon_sym_for, ACTIONS 111), (anon_sym_while, ACTIONS 113), (anon_sym_try, ACTIONS 115),
    (anon_sym_with, ACTIONS 117), (anon_sym_def, ACTIONS 119), (anon_sym_fn, ACTIONS 119),
    (anon_sym_LBRACK, ACTIONS 59), (anon_sym_LBRACE, ACTIONS 61), (anon_sym_global, ACTIONS 63),
    (anon_sym_nonlocal, ACTIONS 65), (anon_sym_exec, ACTIONS 67), (anon_sym_type, ACTIONS 69),
    (anon_sym_class, ACTIONS 121), (anon_sym_struct, ACTIONS 121), (anon_sym_mut, ACTIONS 73),
    (anon_sym_out, ACTIONS 73), (anon_sym_trait, ACTIONS 123), (anon_sym_AT, ACTIONS 77),
    (anon_sym_DASH, ACTIONS 79), (anon_sym_PLUS, ACTIONS 79), (anon_sym_ref, ACTIONS 81),
    (anon_sym_var, ACTIONS 81), (anon_sym_not, ACTIONS 83), (anon_sym_TILDE, ACTIONS 79),
    (anon_sym_lambda, ACTIONS 85), (anon_sym_yield, ACTIONS 87), (sym_ellipsis, ACTIONS 89),
    (anon_sym___mlir_type, ACTIONS 91), (sym_integer, ACTIONS 93), (sym_float, ACTIONS 89),
    (anon_sym_await, ACTIONS 95), (sym_true, ACTIONS 93), (sym_false, ACTIONS 93),
    (sym_none, ACTIONS 93), (sym_comment, ACTIONS 3), (sym_line_continuation, ACTIONS 3),
    (sym__dedent, ACTIONS 129), (sym_string_start, ACTIONS 97)]"

definition parse_table_174 :: "(nat \<times> nat) list" where "parse_table_174 = [
    (sym__statement, STATE 925), (sym__simple_statements, STATE 925),
    (sym_import_statement, STATE 11814), (sym_future_import_statement, STATE 11814),
    (sym_import_from_statement, STATE 11814), (sym_print_statement, STATE 11814),
    (sym_assert_statement, STATE 11814), (sym_comptime_assert_statement, STATE 11814),
    (sym_expression_statement, STATE 11814), (sym_tuple_expression, STATE 12425),
    (sym_named_expression, STATE 7969), (sym__named_expression_lhs, STATE 12752),
    (sym_return_statement, STATE 11814), (sym_delete_statement, STATE 11814),
    (sym_raise_statement, STATE 11814), (sym_pass_statement, STATE 11814),
    (sym_break_statement, STATE 11814), (sym_continue_statement, STATE 11814),
    (sym_extension_definition, STATE 925), (sym_mlir_region, STATE 925),
    (sym_comptime_statement, STATE 925), (sym_if_statement, STATE 925),
    (sym_match_statement, STATE 925), (sym_for_statement, STATE 925),
    (sym_while_statement, STATE 925), (sym_try_statement, STATE 925),
    (sym_with_statement, STATE 925), (sym_function_definition, STATE 925),
    (sym_global_statement, STATE 11814), (sym_nonlocal_statement, STATE 11814),
    (sym_exec_statement, STATE 11814), (sym_type_alias_statement, STATE 11814),
    (sym_parameterized_alias_statement, STATE 11814), (sym_class_definition, STATE 925),
    (sym_trait_definition, STATE 925), (sym_decorated_definition, STATE 925),
    (sym_decorator, STATE 3670), (sym_block, STATE 5047), (sym_pattern, STATE 8086),
    (sym_tuple_pattern, STATE 8101), (sym_list_pattern, STATE 8101),
    (sym_list_splat_pattern, STATE 6819), (sym_as_pattern, STATE 7969),
    (sym_expression, STATE 9883), (sym_primary_expression, STATE 7326),
    (sym_comptime_expression, STATE 7017), (sym_transfer_expression, STATE 7017),
    (sym_not_operator, STATE 7969), (sym_boolean_operator, STATE 7969),
    (sym_binary_operator, STATE 7017), (sym_unary_operator, STATE 7017),
    (sym_comparison_operator, STATE 7969), (sym_lambda, STATE 7969),
    (sym_assignment, STATE 12425), (sym_augmented_assignment, STATE 12425),
    (sym_pattern_list, STATE 8578), (sym_yield, STATE 12425), (sym_attribute, STATE 6836),
    (sym_subscript, STATE 6838), (sym_call, STATE 6845), (sym_mlir_type, STATE 7017),
    (sym_list, STATE 7017), (sym_set, STATE 7017), (sym_tuple, STATE 7017),
    (sym_dictionary, STATE 7017), (sym_struct_literal, STATE 7017),
    (sym_list_comprehension, STATE 7017), (sym_dictionary_comprehension, STATE 7017),
    (sym_set_comprehension, STATE 7017), (sym_generator_expression, STATE 7017),
    (sym_parenthesized_expression, STATE 7017), (sym_conditional_expression, STATE 7969),
    (sym_concatenated_string, STATE 7017), (sym_string, STATE 6751), (sym_await, STATE 7017),
    (aux_sym_module_repeat1, STATE 925), (aux_sym_decorated_definition_repeat1, STATE 3670),
    (sym_identifier, ACTIONS 9), (anon_sym_import, ACTIONS 11), (anon_sym_from, ACTIONS 13),
    (anon_sym_LPAREN, ACTIONS 15), (anon_sym_STAR, ACTIONS 17), (anon_sym_print, ACTIONS 19),
    (anon_sym_comptime, ACTIONS 99), (anon_sym_assert, ACTIONS 23),
    (anon_sym___comptime_assert, ACTIONS 25), (anon_sym_return, ACTIONS 27),
    (anon_sym_del, ACTIONS 29), (anon_sym_raise, ACTIONS 31), (anon_sym_pass, ACTIONS 33),
    (anon_sym_break, ACTIONS 35), (anon_sym_continue, ACTIONS 37),
    (anon_sym___extension, ACTIONS 101), (anon_sym___mlir_region, ACTIONS 103),
    (anon_sym_if, ACTIONS 105), (anon_sym_match, ACTIONS 107), (anon_sym_async, ACTIONS 109),
    (anon_sym_for, ACTIONS 111), (anon_sym_while, ACTIONS 113), (anon_sym_try, ACTIONS 115),
    (anon_sym_with, ACTIONS 117), (anon_sym_def, ACTIONS 119), (anon_sym_fn, ACTIONS 119),
    (anon_sym_LBRACK, ACTIONS 59), (anon_sym_LBRACE, ACTIONS 61), (anon_sym_global, ACTIONS 63),
    (anon_sym_nonlocal, ACTIONS 65), (anon_sym_exec, ACTIONS 67), (anon_sym_type, ACTIONS 69),
    (anon_sym_class, ACTIONS 121), (anon_sym_struct, ACTIONS 121), (anon_sym_mut, ACTIONS 73),
    (anon_sym_out, ACTIONS 73), (anon_sym_trait, ACTIONS 123), (anon_sym_AT, ACTIONS 77),
    (anon_sym_DASH, ACTIONS 79), (anon_sym_PLUS, ACTIONS 79), (anon_sym_ref, ACTIONS 81),
    (anon_sym_var, ACTIONS 81), (anon_sym_not, ACTIONS 83), (anon_sym_TILDE, ACTIONS 79),
    (anon_sym_lambda, ACTIONS 85), (anon_sym_yield, ACTIONS 87), (sym_ellipsis, ACTIONS 89),
    (anon_sym___mlir_type, ACTIONS 91), (sym_integer, ACTIONS 93), (sym_float, ACTIONS 89),
    (anon_sym_await, ACTIONS 95), (sym_true, ACTIONS 93), (sym_false, ACTIONS 93),
    (sym_none, ACTIONS 93), (sym_comment, ACTIONS 3), (sym_line_continuation, ACTIONS 3),
    (sym__dedent, ACTIONS 129), (sym_string_start, ACTIONS 97)]"

definition parse_table_175 :: "(nat \<times> nat) list" where "parse_table_175 = [
    (sym__statement, STATE 925), (sym__simple_statements, STATE 925),
    (sym_import_statement, STATE 11814), (sym_future_import_statement, STATE 11814),
    (sym_import_from_statement, STATE 11814), (sym_print_statement, STATE 11814),
    (sym_assert_statement, STATE 11814), (sym_comptime_assert_statement, STATE 11814),
    (sym_expression_statement, STATE 11814), (sym_tuple_expression, STATE 12425),
    (sym_named_expression, STATE 7969), (sym__named_expression_lhs, STATE 12752),
    (sym_return_statement, STATE 11814), (sym_delete_statement, STATE 11814),
    (sym_raise_statement, STATE 11814), (sym_pass_statement, STATE 11814),
    (sym_break_statement, STATE 11814), (sym_continue_statement, STATE 11814),
    (sym_extension_definition, STATE 925), (sym_mlir_region, STATE 925),
    (sym_comptime_statement, STATE 925), (sym_if_statement, STATE 925),
    (sym_match_statement, STATE 925), (sym_for_statement, STATE 925),
    (sym_while_statement, STATE 925), (sym_try_statement, STATE 925),
    (sym_with_statement, STATE 925), (sym_function_definition, STATE 925),
    (sym_global_statement, STATE 11814), (sym_nonlocal_statement, STATE 11814),
    (sym_exec_statement, STATE 11814), (sym_type_alias_statement, STATE 11814),
    (sym_parameterized_alias_statement, STATE 11814), (sym_class_definition, STATE 925),
    (sym_trait_definition, STATE 925), (sym_decorated_definition, STATE 925),
    (sym_decorator, STATE 3670), (sym_block, STATE 5049), (sym_pattern, STATE 8086),
    (sym_tuple_pattern, STATE 8101), (sym_list_pattern, STATE 8101),
    (sym_list_splat_pattern, STATE 6819), (sym_as_pattern, STATE 7969),
    (sym_expression, STATE 9883), (sym_primary_expression, STATE 7326),
    (sym_comptime_expression, STATE 7017), (sym_transfer_expression, STATE 7017),
    (sym_not_operator, STATE 7969), (sym_boolean_operator, STATE 7969),
    (sym_binary_operator, STATE 7017), (sym_unary_operator, STATE 7017),
    (sym_comparison_operator, STATE 7969), (sym_lambda, STATE 7969),
    (sym_assignment, STATE 12425), (sym_augmented_assignment, STATE 12425),
    (sym_pattern_list, STATE 8578), (sym_yield, STATE 12425), (sym_attribute, STATE 6836),
    (sym_subscript, STATE 6838), (sym_call, STATE 6845), (sym_mlir_type, STATE 7017),
    (sym_list, STATE 7017), (sym_set, STATE 7017), (sym_tuple, STATE 7017),
    (sym_dictionary, STATE 7017), (sym_struct_literal, STATE 7017),
    (sym_list_comprehension, STATE 7017), (sym_dictionary_comprehension, STATE 7017),
    (sym_set_comprehension, STATE 7017), (sym_generator_expression, STATE 7017),
    (sym_parenthesized_expression, STATE 7017), (sym_conditional_expression, STATE 7969),
    (sym_concatenated_string, STATE 7017), (sym_string, STATE 6751), (sym_await, STATE 7017),
    (aux_sym_module_repeat1, STATE 925), (aux_sym_decorated_definition_repeat1, STATE 3670),
    (sym_identifier, ACTIONS 9), (anon_sym_import, ACTIONS 11), (anon_sym_from, ACTIONS 13),
    (anon_sym_LPAREN, ACTIONS 15), (anon_sym_STAR, ACTIONS 17), (anon_sym_print, ACTIONS 19),
    (anon_sym_comptime, ACTIONS 99), (anon_sym_assert, ACTIONS 23),
    (anon_sym___comptime_assert, ACTIONS 25), (anon_sym_return, ACTIONS 27),
    (anon_sym_del, ACTIONS 29), (anon_sym_raise, ACTIONS 31), (anon_sym_pass, ACTIONS 33),
    (anon_sym_break, ACTIONS 35), (anon_sym_continue, ACTIONS 37),
    (anon_sym___extension, ACTIONS 101), (anon_sym___mlir_region, ACTIONS 103),
    (anon_sym_if, ACTIONS 105), (anon_sym_match, ACTIONS 107), (anon_sym_async, ACTIONS 109),
    (anon_sym_for, ACTIONS 111), (anon_sym_while, ACTIONS 113), (anon_sym_try, ACTIONS 115),
    (anon_sym_with, ACTIONS 117), (anon_sym_def, ACTIONS 119), (anon_sym_fn, ACTIONS 119),
    (anon_sym_LBRACK, ACTIONS 59), (anon_sym_LBRACE, ACTIONS 61), (anon_sym_global, ACTIONS 63),
    (anon_sym_nonlocal, ACTIONS 65), (anon_sym_exec, ACTIONS 67), (anon_sym_type, ACTIONS 69),
    (anon_sym_class, ACTIONS 121), (anon_sym_struct, ACTIONS 121), (anon_sym_mut, ACTIONS 73),
    (anon_sym_out, ACTIONS 73), (anon_sym_trait, ACTIONS 123), (anon_sym_AT, ACTIONS 77),
    (anon_sym_DASH, ACTIONS 79), (anon_sym_PLUS, ACTIONS 79), (anon_sym_ref, ACTIONS 81),
    (anon_sym_var, ACTIONS 81), (anon_sym_not, ACTIONS 83), (anon_sym_TILDE, ACTIONS 79),
    (anon_sym_lambda, ACTIONS 85), (anon_sym_yield, ACTIONS 87), (sym_ellipsis, ACTIONS 89),
    (anon_sym___mlir_type, ACTIONS 91), (sym_integer, ACTIONS 93), (sym_float, ACTIONS 89),
    (anon_sym_await, ACTIONS 95), (sym_true, ACTIONS 93), (sym_false, ACTIONS 93),
    (sym_none, ACTIONS 93), (sym_comment, ACTIONS 3), (sym_line_continuation, ACTIONS 3),
    (sym__dedent, ACTIONS 129), (sym_string_start, ACTIONS 97)]"

definition parse_table_176 :: "(nat \<times> nat) list" where "parse_table_176 = [
    (sym__statement, STATE 925), (sym__simple_statements, STATE 925),
    (sym_import_statement, STATE 11814), (sym_future_import_statement, STATE 11814),
    (sym_import_from_statement, STATE 11814), (sym_print_statement, STATE 11814),
    (sym_assert_statement, STATE 11814), (sym_comptime_assert_statement, STATE 11814),
    (sym_expression_statement, STATE 11814), (sym_tuple_expression, STATE 12425),
    (sym_named_expression, STATE 7969), (sym__named_expression_lhs, STATE 12752),
    (sym_return_statement, STATE 11814), (sym_delete_statement, STATE 11814),
    (sym_raise_statement, STATE 11814), (sym_pass_statement, STATE 11814),
    (sym_break_statement, STATE 11814), (sym_continue_statement, STATE 11814),
    (sym_extension_definition, STATE 925), (sym_mlir_region, STATE 925),
    (sym_comptime_statement, STATE 925), (sym_if_statement, STATE 925),
    (sym_match_statement, STATE 925), (sym_for_statement, STATE 925),
    (sym_while_statement, STATE 925), (sym_try_statement, STATE 925),
    (sym_with_statement, STATE 925), (sym_function_definition, STATE 925),
    (sym_global_statement, STATE 11814), (sym_nonlocal_statement, STATE 11814),
    (sym_exec_statement, STATE 11814), (sym_type_alias_statement, STATE 11814),
    (sym_parameterized_alias_statement, STATE 11814), (sym_class_definition, STATE 925),
    (sym_trait_definition, STATE 925), (sym_decorated_definition, STATE 925),
    (sym_decorator, STATE 3670), (sym_block, STATE 5055), (sym_pattern, STATE 8086),
    (sym_tuple_pattern, STATE 8101), (sym_list_pattern, STATE 8101),
    (sym_list_splat_pattern, STATE 6819), (sym_as_pattern, STATE 7969),
    (sym_expression, STATE 9883), (sym_primary_expression, STATE 7326),
    (sym_comptime_expression, STATE 7017), (sym_transfer_expression, STATE 7017),
    (sym_not_operator, STATE 7969), (sym_boolean_operator, STATE 7969),
    (sym_binary_operator, STATE 7017), (sym_unary_operator, STATE 7017),
    (sym_comparison_operator, STATE 7969), (sym_lambda, STATE 7969),
    (sym_assignment, STATE 12425), (sym_augmented_assignment, STATE 12425),
    (sym_pattern_list, STATE 8578), (sym_yield, STATE 12425), (sym_attribute, STATE 6836),
    (sym_subscript, STATE 6838), (sym_call, STATE 6845), (sym_mlir_type, STATE 7017),
    (sym_list, STATE 7017), (sym_set, STATE 7017), (sym_tuple, STATE 7017),
    (sym_dictionary, STATE 7017), (sym_struct_literal, STATE 7017),
    (sym_list_comprehension, STATE 7017), (sym_dictionary_comprehension, STATE 7017),
    (sym_set_comprehension, STATE 7017), (sym_generator_expression, STATE 7017),
    (sym_parenthesized_expression, STATE 7017), (sym_conditional_expression, STATE 7969),
    (sym_concatenated_string, STATE 7017), (sym_string, STATE 6751), (sym_await, STATE 7017),
    (aux_sym_module_repeat1, STATE 925), (aux_sym_decorated_definition_repeat1, STATE 3670),
    (sym_identifier, ACTIONS 9), (anon_sym_import, ACTIONS 11), (anon_sym_from, ACTIONS 13),
    (anon_sym_LPAREN, ACTIONS 15), (anon_sym_STAR, ACTIONS 17), (anon_sym_print, ACTIONS 19),
    (anon_sym_comptime, ACTIONS 99), (anon_sym_assert, ACTIONS 23),
    (anon_sym___comptime_assert, ACTIONS 25), (anon_sym_return, ACTIONS 27),
    (anon_sym_del, ACTIONS 29), (anon_sym_raise, ACTIONS 31), (anon_sym_pass, ACTIONS 33),
    (anon_sym_break, ACTIONS 35), (anon_sym_continue, ACTIONS 37),
    (anon_sym___extension, ACTIONS 101), (anon_sym___mlir_region, ACTIONS 103),
    (anon_sym_if, ACTIONS 105), (anon_sym_match, ACTIONS 107), (anon_sym_async, ACTIONS 109),
    (anon_sym_for, ACTIONS 111), (anon_sym_while, ACTIONS 113), (anon_sym_try, ACTIONS 115),
    (anon_sym_with, ACTIONS 117), (anon_sym_def, ACTIONS 119), (anon_sym_fn, ACTIONS 119),
    (anon_sym_LBRACK, ACTIONS 59), (anon_sym_LBRACE, ACTIONS 61), (anon_sym_global, ACTIONS 63),
    (anon_sym_nonlocal, ACTIONS 65), (anon_sym_exec, ACTIONS 67), (anon_sym_type, ACTIONS 69),
    (anon_sym_class, ACTIONS 121), (anon_sym_struct, ACTIONS 121), (anon_sym_mut, ACTIONS 73),
    (anon_sym_out, ACTIONS 73), (anon_sym_trait, ACTIONS 123), (anon_sym_AT, ACTIONS 77),
    (anon_sym_DASH, ACTIONS 79), (anon_sym_PLUS, ACTIONS 79), (anon_sym_ref, ACTIONS 81),
    (anon_sym_var, ACTIONS 81), (anon_sym_not, ACTIONS 83), (anon_sym_TILDE, ACTIONS 79),
    (anon_sym_lambda, ACTIONS 85), (anon_sym_yield, ACTIONS 87), (sym_ellipsis, ACTIONS 89),
    (anon_sym___mlir_type, ACTIONS 91), (sym_integer, ACTIONS 93), (sym_float, ACTIONS 89),
    (anon_sym_await, ACTIONS 95), (sym_true, ACTIONS 93), (sym_false, ACTIONS 93),
    (sym_none, ACTIONS 93), (sym_comment, ACTIONS 3), (sym_line_continuation, ACTIONS 3),
    (sym__dedent, ACTIONS 129), (sym_string_start, ACTIONS 97)]"

definition parse_table_177 :: "(nat \<times> nat) list" where "parse_table_177 = [
    (sym__statement, STATE 925), (sym__simple_statements, STATE 925),
    (sym_import_statement, STATE 11814), (sym_future_import_statement, STATE 11814),
    (sym_import_from_statement, STATE 11814), (sym_print_statement, STATE 11814),
    (sym_assert_statement, STATE 11814), (sym_comptime_assert_statement, STATE 11814),
    (sym_expression_statement, STATE 11814), (sym_tuple_expression, STATE 12425),
    (sym_named_expression, STATE 7969), (sym__named_expression_lhs, STATE 12752),
    (sym_return_statement, STATE 11814), (sym_delete_statement, STATE 11814),
    (sym_raise_statement, STATE 11814), (sym_pass_statement, STATE 11814),
    (sym_break_statement, STATE 11814), (sym_continue_statement, STATE 11814),
    (sym_extension_definition, STATE 925), (sym_mlir_region, STATE 925),
    (sym_comptime_statement, STATE 925), (sym_if_statement, STATE 925),
    (sym_match_statement, STATE 925), (sym_for_statement, STATE 925),
    (sym_while_statement, STATE 925), (sym_try_statement, STATE 925),
    (sym_with_statement, STATE 925), (sym_function_definition, STATE 925),
    (sym_global_statement, STATE 11814), (sym_nonlocal_statement, STATE 11814),
    (sym_exec_statement, STATE 11814), (sym_type_alias_statement, STATE 11814),
    (sym_parameterized_alias_statement, STATE 11814), (sym_class_definition, STATE 925),
    (sym_trait_definition, STATE 925), (sym_decorated_definition, STATE 925),
    (sym_decorator, STATE 3670), (sym_block, STATE 5057), (sym_pattern, STATE 8086),
    (sym_tuple_pattern, STATE 8101), (sym_list_pattern, STATE 8101),
    (sym_list_splat_pattern, STATE 6819), (sym_as_pattern, STATE 7969),
    (sym_expression, STATE 9883), (sym_primary_expression, STATE 7326),
    (sym_comptime_expression, STATE 7017), (sym_transfer_expression, STATE 7017),
    (sym_not_operator, STATE 7969), (sym_boolean_operator, STATE 7969),
    (sym_binary_operator, STATE 7017), (sym_unary_operator, STATE 7017),
    (sym_comparison_operator, STATE 7969), (sym_lambda, STATE 7969),
    (sym_assignment, STATE 12425), (sym_augmented_assignment, STATE 12425),
    (sym_pattern_list, STATE 8578), (sym_yield, STATE 12425), (sym_attribute, STATE 6836),
    (sym_subscript, STATE 6838), (sym_call, STATE 6845), (sym_mlir_type, STATE 7017),
    (sym_list, STATE 7017), (sym_set, STATE 7017), (sym_tuple, STATE 7017),
    (sym_dictionary, STATE 7017), (sym_struct_literal, STATE 7017),
    (sym_list_comprehension, STATE 7017), (sym_dictionary_comprehension, STATE 7017),
    (sym_set_comprehension, STATE 7017), (sym_generator_expression, STATE 7017),
    (sym_parenthesized_expression, STATE 7017), (sym_conditional_expression, STATE 7969),
    (sym_concatenated_string, STATE 7017), (sym_string, STATE 6751), (sym_await, STATE 7017),
    (aux_sym_module_repeat1, STATE 925), (aux_sym_decorated_definition_repeat1, STATE 3670),
    (sym_identifier, ACTIONS 9), (anon_sym_import, ACTIONS 11), (anon_sym_from, ACTIONS 13),
    (anon_sym_LPAREN, ACTIONS 15), (anon_sym_STAR, ACTIONS 17), (anon_sym_print, ACTIONS 19),
    (anon_sym_comptime, ACTIONS 99), (anon_sym_assert, ACTIONS 23),
    (anon_sym___comptime_assert, ACTIONS 25), (anon_sym_return, ACTIONS 27),
    (anon_sym_del, ACTIONS 29), (anon_sym_raise, ACTIONS 31), (anon_sym_pass, ACTIONS 33),
    (anon_sym_break, ACTIONS 35), (anon_sym_continue, ACTIONS 37),
    (anon_sym___extension, ACTIONS 101), (anon_sym___mlir_region, ACTIONS 103),
    (anon_sym_if, ACTIONS 105), (anon_sym_match, ACTIONS 107), (anon_sym_async, ACTIONS 109),
    (anon_sym_for, ACTIONS 111), (anon_sym_while, ACTIONS 113), (anon_sym_try, ACTIONS 115),
    (anon_sym_with, ACTIONS 117), (anon_sym_def, ACTIONS 119), (anon_sym_fn, ACTIONS 119),
    (anon_sym_LBRACK, ACTIONS 59), (anon_sym_LBRACE, ACTIONS 61), (anon_sym_global, ACTIONS 63),
    (anon_sym_nonlocal, ACTIONS 65), (anon_sym_exec, ACTIONS 67), (anon_sym_type, ACTIONS 69),
    (anon_sym_class, ACTIONS 121), (anon_sym_struct, ACTIONS 121), (anon_sym_mut, ACTIONS 73),
    (anon_sym_out, ACTIONS 73), (anon_sym_trait, ACTIONS 123), (anon_sym_AT, ACTIONS 77),
    (anon_sym_DASH, ACTIONS 79), (anon_sym_PLUS, ACTIONS 79), (anon_sym_ref, ACTIONS 81),
    (anon_sym_var, ACTIONS 81), (anon_sym_not, ACTIONS 83), (anon_sym_TILDE, ACTIONS 79),
    (anon_sym_lambda, ACTIONS 85), (anon_sym_yield, ACTIONS 87), (sym_ellipsis, ACTIONS 89),
    (anon_sym___mlir_type, ACTIONS 91), (sym_integer, ACTIONS 93), (sym_float, ACTIONS 89),
    (anon_sym_await, ACTIONS 95), (sym_true, ACTIONS 93), (sym_false, ACTIONS 93),
    (sym_none, ACTIONS 93), (sym_comment, ACTIONS 3), (sym_line_continuation, ACTIONS 3),
    (sym__dedent, ACTIONS 129), (sym_string_start, ACTIONS 97)]"

definition parse_table_178 :: "(nat \<times> nat) list" where "parse_table_178 = [
    (sym__statement, STATE 925), (sym__simple_statements, STATE 925),
    (sym_import_statement, STATE 11814), (sym_future_import_statement, STATE 11814),
    (sym_import_from_statement, STATE 11814), (sym_print_statement, STATE 11814),
    (sym_assert_statement, STATE 11814), (sym_comptime_assert_statement, STATE 11814),
    (sym_expression_statement, STATE 11814), (sym_tuple_expression, STATE 12425),
    (sym_named_expression, STATE 7969), (sym__named_expression_lhs, STATE 12752),
    (sym_return_statement, STATE 11814), (sym_delete_statement, STATE 11814),
    (sym_raise_statement, STATE 11814), (sym_pass_statement, STATE 11814),
    (sym_break_statement, STATE 11814), (sym_continue_statement, STATE 11814),
    (sym_extension_definition, STATE 925), (sym_mlir_region, STATE 925),
    (sym_comptime_statement, STATE 925), (sym_if_statement, STATE 925),
    (sym_match_statement, STATE 925), (sym_for_statement, STATE 925),
    (sym_while_statement, STATE 925), (sym_try_statement, STATE 925),
    (sym_with_statement, STATE 925), (sym_function_definition, STATE 925),
    (sym_global_statement, STATE 11814), (sym_nonlocal_statement, STATE 11814),
    (sym_exec_statement, STATE 11814), (sym_type_alias_statement, STATE 11814),
    (sym_parameterized_alias_statement, STATE 11814), (sym_class_definition, STATE 925),
    (sym_trait_definition, STATE 925), (sym_decorated_definition, STATE 925),
    (sym_decorator, STATE 3670), (sym_block, STATE 5071), (sym_pattern, STATE 8086),
    (sym_tuple_pattern, STATE 8101), (sym_list_pattern, STATE 8101),
    (sym_list_splat_pattern, STATE 6819), (sym_as_pattern, STATE 7969),
    (sym_expression, STATE 9883), (sym_primary_expression, STATE 7326),
    (sym_comptime_expression, STATE 7017), (sym_transfer_expression, STATE 7017),
    (sym_not_operator, STATE 7969), (sym_boolean_operator, STATE 7969),
    (sym_binary_operator, STATE 7017), (sym_unary_operator, STATE 7017),
    (sym_comparison_operator, STATE 7969), (sym_lambda, STATE 7969),
    (sym_assignment, STATE 12425), (sym_augmented_assignment, STATE 12425),
    (sym_pattern_list, STATE 8578), (sym_yield, STATE 12425), (sym_attribute, STATE 6836),
    (sym_subscript, STATE 6838), (sym_call, STATE 6845), (sym_mlir_type, STATE 7017),
    (sym_list, STATE 7017), (sym_set, STATE 7017), (sym_tuple, STATE 7017),
    (sym_dictionary, STATE 7017), (sym_struct_literal, STATE 7017),
    (sym_list_comprehension, STATE 7017), (sym_dictionary_comprehension, STATE 7017),
    (sym_set_comprehension, STATE 7017), (sym_generator_expression, STATE 7017),
    (sym_parenthesized_expression, STATE 7017), (sym_conditional_expression, STATE 7969),
    (sym_concatenated_string, STATE 7017), (sym_string, STATE 6751), (sym_await, STATE 7017),
    (aux_sym_module_repeat1, STATE 925), (aux_sym_decorated_definition_repeat1, STATE 3670),
    (sym_identifier, ACTIONS 9), (anon_sym_import, ACTIONS 11), (anon_sym_from, ACTIONS 13),
    (anon_sym_LPAREN, ACTIONS 15), (anon_sym_STAR, ACTIONS 17), (anon_sym_print, ACTIONS 19),
    (anon_sym_comptime, ACTIONS 99), (anon_sym_assert, ACTIONS 23),
    (anon_sym___comptime_assert, ACTIONS 25), (anon_sym_return, ACTIONS 27),
    (anon_sym_del, ACTIONS 29), (anon_sym_raise, ACTIONS 31), (anon_sym_pass, ACTIONS 33),
    (anon_sym_break, ACTIONS 35), (anon_sym_continue, ACTIONS 37),
    (anon_sym___extension, ACTIONS 101), (anon_sym___mlir_region, ACTIONS 103),
    (anon_sym_if, ACTIONS 105), (anon_sym_match, ACTIONS 107), (anon_sym_async, ACTIONS 109),
    (anon_sym_for, ACTIONS 111), (anon_sym_while, ACTIONS 113), (anon_sym_try, ACTIONS 115),
    (anon_sym_with, ACTIONS 117), (anon_sym_def, ACTIONS 119), (anon_sym_fn, ACTIONS 119),
    (anon_sym_LBRACK, ACTIONS 59), (anon_sym_LBRACE, ACTIONS 61), (anon_sym_global, ACTIONS 63),
    (anon_sym_nonlocal, ACTIONS 65), (anon_sym_exec, ACTIONS 67), (anon_sym_type, ACTIONS 69),
    (anon_sym_class, ACTIONS 121), (anon_sym_struct, ACTIONS 121), (anon_sym_mut, ACTIONS 73),
    (anon_sym_out, ACTIONS 73), (anon_sym_trait, ACTIONS 123), (anon_sym_AT, ACTIONS 77),
    (anon_sym_DASH, ACTIONS 79), (anon_sym_PLUS, ACTIONS 79), (anon_sym_ref, ACTIONS 81),
    (anon_sym_var, ACTIONS 81), (anon_sym_not, ACTIONS 83), (anon_sym_TILDE, ACTIONS 79),
    (anon_sym_lambda, ACTIONS 85), (anon_sym_yield, ACTIONS 87), (sym_ellipsis, ACTIONS 89),
    (anon_sym___mlir_type, ACTIONS 91), (sym_integer, ACTIONS 93), (sym_float, ACTIONS 89),
    (anon_sym_await, ACTIONS 95), (sym_true, ACTIONS 93), (sym_false, ACTIONS 93),
    (sym_none, ACTIONS 93), (sym_comment, ACTIONS 3), (sym_line_continuation, ACTIONS 3),
    (sym__dedent, ACTIONS 129), (sym_string_start, ACTIONS 97)]"

definition parse_table_179 :: "(nat \<times> nat) list" where "parse_table_179 = [
    (sym__statement, STATE 925), (sym__simple_statements, STATE 925),
    (sym_import_statement, STATE 11814), (sym_future_import_statement, STATE 11814),
    (sym_import_from_statement, STATE 11814), (sym_print_statement, STATE 11814),
    (sym_assert_statement, STATE 11814), (sym_comptime_assert_statement, STATE 11814),
    (sym_expression_statement, STATE 11814), (sym_tuple_expression, STATE 12425),
    (sym_named_expression, STATE 7969), (sym__named_expression_lhs, STATE 12752),
    (sym_return_statement, STATE 11814), (sym_delete_statement, STATE 11814),
    (sym_raise_statement, STATE 11814), (sym_pass_statement, STATE 11814),
    (sym_break_statement, STATE 11814), (sym_continue_statement, STATE 11814),
    (sym_extension_definition, STATE 925), (sym_mlir_region, STATE 925),
    (sym_comptime_statement, STATE 925), (sym_if_statement, STATE 925),
    (sym_match_statement, STATE 925), (sym_for_statement, STATE 925),
    (sym_while_statement, STATE 925), (sym_try_statement, STATE 925),
    (sym_with_statement, STATE 925), (sym_function_definition, STATE 925),
    (sym_global_statement, STATE 11814), (sym_nonlocal_statement, STATE 11814),
    (sym_exec_statement, STATE 11814), (sym_type_alias_statement, STATE 11814),
    (sym_parameterized_alias_statement, STATE 11814), (sym_class_definition, STATE 925),
    (sym_trait_definition, STATE 925), (sym_decorated_definition, STATE 925),
    (sym_decorator, STATE 3670), (sym_block, STATE 5074), (sym_pattern, STATE 8086),
    (sym_tuple_pattern, STATE 8101), (sym_list_pattern, STATE 8101),
    (sym_list_splat_pattern, STATE 6819), (sym_as_pattern, STATE 7969),
    (sym_expression, STATE 9883), (sym_primary_expression, STATE 7326),
    (sym_comptime_expression, STATE 7017), (sym_transfer_expression, STATE 7017),
    (sym_not_operator, STATE 7969), (sym_boolean_operator, STATE 7969),
    (sym_binary_operator, STATE 7017), (sym_unary_operator, STATE 7017),
    (sym_comparison_operator, STATE 7969), (sym_lambda, STATE 7969),
    (sym_assignment, STATE 12425), (sym_augmented_assignment, STATE 12425),
    (sym_pattern_list, STATE 8578), (sym_yield, STATE 12425), (sym_attribute, STATE 6836),
    (sym_subscript, STATE 6838), (sym_call, STATE 6845), (sym_mlir_type, STATE 7017),
    (sym_list, STATE 7017), (sym_set, STATE 7017), (sym_tuple, STATE 7017),
    (sym_dictionary, STATE 7017), (sym_struct_literal, STATE 7017),
    (sym_list_comprehension, STATE 7017), (sym_dictionary_comprehension, STATE 7017),
    (sym_set_comprehension, STATE 7017), (sym_generator_expression, STATE 7017),
    (sym_parenthesized_expression, STATE 7017), (sym_conditional_expression, STATE 7969),
    (sym_concatenated_string, STATE 7017), (sym_string, STATE 6751), (sym_await, STATE 7017),
    (aux_sym_module_repeat1, STATE 925), (aux_sym_decorated_definition_repeat1, STATE 3670),
    (sym_identifier, ACTIONS 9), (anon_sym_import, ACTIONS 11), (anon_sym_from, ACTIONS 13),
    (anon_sym_LPAREN, ACTIONS 15), (anon_sym_STAR, ACTIONS 17), (anon_sym_print, ACTIONS 19),
    (anon_sym_comptime, ACTIONS 99), (anon_sym_assert, ACTIONS 23),
    (anon_sym___comptime_assert, ACTIONS 25), (anon_sym_return, ACTIONS 27),
    (anon_sym_del, ACTIONS 29), (anon_sym_raise, ACTIONS 31), (anon_sym_pass, ACTIONS 33),
    (anon_sym_break, ACTIONS 35), (anon_sym_continue, ACTIONS 37),
    (anon_sym___extension, ACTIONS 101), (anon_sym___mlir_region, ACTIONS 103),
    (anon_sym_if, ACTIONS 105), (anon_sym_match, ACTIONS 107), (anon_sym_async, ACTIONS 109),
    (anon_sym_for, ACTIONS 111), (anon_sym_while, ACTIONS 113), (anon_sym_try, ACTIONS 115),
    (anon_sym_with, ACTIONS 117), (anon_sym_def, ACTIONS 119), (anon_sym_fn, ACTIONS 119),
    (anon_sym_LBRACK, ACTIONS 59), (anon_sym_LBRACE, ACTIONS 61), (anon_sym_global, ACTIONS 63),
    (anon_sym_nonlocal, ACTIONS 65), (anon_sym_exec, ACTIONS 67), (anon_sym_type, ACTIONS 69),
    (anon_sym_class, ACTIONS 121), (anon_sym_struct, ACTIONS 121), (anon_sym_mut, ACTIONS 73),
    (anon_sym_out, ACTIONS 73), (anon_sym_trait, ACTIONS 123), (anon_sym_AT, ACTIONS 77),
    (anon_sym_DASH, ACTIONS 79), (anon_sym_PLUS, ACTIONS 79), (anon_sym_ref, ACTIONS 81),
    (anon_sym_var, ACTIONS 81), (anon_sym_not, ACTIONS 83), (anon_sym_TILDE, ACTIONS 79),
    (anon_sym_lambda, ACTIONS 85), (anon_sym_yield, ACTIONS 87), (sym_ellipsis, ACTIONS 89),
    (anon_sym___mlir_type, ACTIONS 91), (sym_integer, ACTIONS 93), (sym_float, ACTIONS 89),
    (anon_sym_await, ACTIONS 95), (sym_true, ACTIONS 93), (sym_false, ACTIONS 93),
    (sym_none, ACTIONS 93), (sym_comment, ACTIONS 3), (sym_line_continuation, ACTIONS 3),
    (sym__dedent, ACTIONS 129), (sym_string_start, ACTIONS 97)]"

definition parse_table_180 :: "(nat \<times> nat) list" where "parse_table_180 = [
    (sym__statement, STATE 925), (sym__simple_statements, STATE 925),
    (sym_import_statement, STATE 11814), (sym_future_import_statement, STATE 11814),
    (sym_import_from_statement, STATE 11814), (sym_print_statement, STATE 11814),
    (sym_assert_statement, STATE 11814), (sym_comptime_assert_statement, STATE 11814),
    (sym_expression_statement, STATE 11814), (sym_tuple_expression, STATE 12425),
    (sym_named_expression, STATE 7969), (sym__named_expression_lhs, STATE 12752),
    (sym_return_statement, STATE 11814), (sym_delete_statement, STATE 11814),
    (sym_raise_statement, STATE 11814), (sym_pass_statement, STATE 11814),
    (sym_break_statement, STATE 11814), (sym_continue_statement, STATE 11814),
    (sym_extension_definition, STATE 925), (sym_mlir_region, STATE 925),
    (sym_comptime_statement, STATE 925), (sym_if_statement, STATE 925),
    (sym_match_statement, STATE 925), (sym_for_statement, STATE 925),
    (sym_while_statement, STATE 925), (sym_try_statement, STATE 925),
    (sym_with_statement, STATE 925), (sym_function_definition, STATE 925),
    (sym_global_statement, STATE 11814), (sym_nonlocal_statement, STATE 11814),
    (sym_exec_statement, STATE 11814), (sym_type_alias_statement, STATE 11814),
    (sym_parameterized_alias_statement, STATE 11814), (sym_class_definition, STATE 925),
    (sym_trait_definition, STATE 925), (sym_decorated_definition, STATE 925),
    (sym_decorator, STATE 3670), (sym_block, STATE 5087), (sym_pattern, STATE 8086),
    (sym_tuple_pattern, STATE 8101), (sym_list_pattern, STATE 8101),
    (sym_list_splat_pattern, STATE 6819), (sym_as_pattern, STATE 7969),
    (sym_expression, STATE 9883), (sym_primary_expression, STATE 7326),
    (sym_comptime_expression, STATE 7017), (sym_transfer_expression, STATE 7017),
    (sym_not_operator, STATE 7969), (sym_boolean_operator, STATE 7969),
    (sym_binary_operator, STATE 7017), (sym_unary_operator, STATE 7017),
    (sym_comparison_operator, STATE 7969), (sym_lambda, STATE 7969),
    (sym_assignment, STATE 12425), (sym_augmented_assignment, STATE 12425),
    (sym_pattern_list, STATE 8578), (sym_yield, STATE 12425), (sym_attribute, STATE 6836),
    (sym_subscript, STATE 6838), (sym_call, STATE 6845), (sym_mlir_type, STATE 7017),
    (sym_list, STATE 7017), (sym_set, STATE 7017), (sym_tuple, STATE 7017),
    (sym_dictionary, STATE 7017), (sym_struct_literal, STATE 7017),
    (sym_list_comprehension, STATE 7017), (sym_dictionary_comprehension, STATE 7017),
    (sym_set_comprehension, STATE 7017), (sym_generator_expression, STATE 7017),
    (sym_parenthesized_expression, STATE 7017), (sym_conditional_expression, STATE 7969),
    (sym_concatenated_string, STATE 7017), (sym_string, STATE 6751), (sym_await, STATE 7017),
    (aux_sym_module_repeat1, STATE 925), (aux_sym_decorated_definition_repeat1, STATE 3670),
    (sym_identifier, ACTIONS 9), (anon_sym_import, ACTIONS 11), (anon_sym_from, ACTIONS 13),
    (anon_sym_LPAREN, ACTIONS 15), (anon_sym_STAR, ACTIONS 17), (anon_sym_print, ACTIONS 19),
    (anon_sym_comptime, ACTIONS 99), (anon_sym_assert, ACTIONS 23),
    (anon_sym___comptime_assert, ACTIONS 25), (anon_sym_return, ACTIONS 27),
    (anon_sym_del, ACTIONS 29), (anon_sym_raise, ACTIONS 31), (anon_sym_pass, ACTIONS 33),
    (anon_sym_break, ACTIONS 35), (anon_sym_continue, ACTIONS 37),
    (anon_sym___extension, ACTIONS 101), (anon_sym___mlir_region, ACTIONS 103),
    (anon_sym_if, ACTIONS 105), (anon_sym_match, ACTIONS 107), (anon_sym_async, ACTIONS 109),
    (anon_sym_for, ACTIONS 111), (anon_sym_while, ACTIONS 113), (anon_sym_try, ACTIONS 115),
    (anon_sym_with, ACTIONS 117), (anon_sym_def, ACTIONS 119), (anon_sym_fn, ACTIONS 119),
    (anon_sym_LBRACK, ACTIONS 59), (anon_sym_LBRACE, ACTIONS 61), (anon_sym_global, ACTIONS 63),
    (anon_sym_nonlocal, ACTIONS 65), (anon_sym_exec, ACTIONS 67), (anon_sym_type, ACTIONS 69),
    (anon_sym_class, ACTIONS 121), (anon_sym_struct, ACTIONS 121), (anon_sym_mut, ACTIONS 73),
    (anon_sym_out, ACTIONS 73), (anon_sym_trait, ACTIONS 123), (anon_sym_AT, ACTIONS 77),
    (anon_sym_DASH, ACTIONS 79), (anon_sym_PLUS, ACTIONS 79), (anon_sym_ref, ACTIONS 81),
    (anon_sym_var, ACTIONS 81), (anon_sym_not, ACTIONS 83), (anon_sym_TILDE, ACTIONS 79),
    (anon_sym_lambda, ACTIONS 85), (anon_sym_yield, ACTIONS 87), (sym_ellipsis, ACTIONS 89),
    (anon_sym___mlir_type, ACTIONS 91), (sym_integer, ACTIONS 93), (sym_float, ACTIONS 89),
    (anon_sym_await, ACTIONS 95), (sym_true, ACTIONS 93), (sym_false, ACTIONS 93),
    (sym_none, ACTIONS 93), (sym_comment, ACTIONS 3), (sym_line_continuation, ACTIONS 3),
    (sym__dedent, ACTIONS 129), (sym_string_start, ACTIONS 97)]"

definition parse_table_181 :: "(nat \<times> nat) list" where "parse_table_181 = [
    (sym__statement, STATE 925), (sym__simple_statements, STATE 925),
    (sym_import_statement, STATE 11814), (sym_future_import_statement, STATE 11814),
    (sym_import_from_statement, STATE 11814), (sym_print_statement, STATE 11814),
    (sym_assert_statement, STATE 11814), (sym_comptime_assert_statement, STATE 11814),
    (sym_expression_statement, STATE 11814), (sym_tuple_expression, STATE 12425),
    (sym_named_expression, STATE 7969), (sym__named_expression_lhs, STATE 12752),
    (sym_return_statement, STATE 11814), (sym_delete_statement, STATE 11814),
    (sym_raise_statement, STATE 11814), (sym_pass_statement, STATE 11814),
    (sym_break_statement, STATE 11814), (sym_continue_statement, STATE 11814),
    (sym_extension_definition, STATE 925), (sym_mlir_region, STATE 925),
    (sym_comptime_statement, STATE 925), (sym_if_statement, STATE 925),
    (sym_match_statement, STATE 925), (sym_for_statement, STATE 925),
    (sym_while_statement, STATE 925), (sym_try_statement, STATE 925),
    (sym_with_statement, STATE 925), (sym_function_definition, STATE 925),
    (sym_global_statement, STATE 11814), (sym_nonlocal_statement, STATE 11814),
    (sym_exec_statement, STATE 11814), (sym_type_alias_statement, STATE 11814),
    (sym_parameterized_alias_statement, STATE 11814), (sym_class_definition, STATE 925),
    (sym_trait_definition, STATE 925), (sym_decorated_definition, STATE 925),
    (sym_decorator, STATE 3670), (sym_block, STATE 5098), (sym_pattern, STATE 8086),
    (sym_tuple_pattern, STATE 8101), (sym_list_pattern, STATE 8101),
    (sym_list_splat_pattern, STATE 6819), (sym_as_pattern, STATE 7969),
    (sym_expression, STATE 9883), (sym_primary_expression, STATE 7326),
    (sym_comptime_expression, STATE 7017), (sym_transfer_expression, STATE 7017),
    (sym_not_operator, STATE 7969), (sym_boolean_operator, STATE 7969),
    (sym_binary_operator, STATE 7017), (sym_unary_operator, STATE 7017),
    (sym_comparison_operator, STATE 7969), (sym_lambda, STATE 7969),
    (sym_assignment, STATE 12425), (sym_augmented_assignment, STATE 12425),
    (sym_pattern_list, STATE 8578), (sym_yield, STATE 12425), (sym_attribute, STATE 6836),
    (sym_subscript, STATE 6838), (sym_call, STATE 6845), (sym_mlir_type, STATE 7017),
    (sym_list, STATE 7017), (sym_set, STATE 7017), (sym_tuple, STATE 7017),
    (sym_dictionary, STATE 7017), (sym_struct_literal, STATE 7017),
    (sym_list_comprehension, STATE 7017), (sym_dictionary_comprehension, STATE 7017),
    (sym_set_comprehension, STATE 7017), (sym_generator_expression, STATE 7017),
    (sym_parenthesized_expression, STATE 7017), (sym_conditional_expression, STATE 7969),
    (sym_concatenated_string, STATE 7017), (sym_string, STATE 6751), (sym_await, STATE 7017),
    (aux_sym_module_repeat1, STATE 925), (aux_sym_decorated_definition_repeat1, STATE 3670),
    (sym_identifier, ACTIONS 9), (anon_sym_import, ACTIONS 11), (anon_sym_from, ACTIONS 13),
    (anon_sym_LPAREN, ACTIONS 15), (anon_sym_STAR, ACTIONS 17), (anon_sym_print, ACTIONS 19),
    (anon_sym_comptime, ACTIONS 99), (anon_sym_assert, ACTIONS 23),
    (anon_sym___comptime_assert, ACTIONS 25), (anon_sym_return, ACTIONS 27),
    (anon_sym_del, ACTIONS 29), (anon_sym_raise, ACTIONS 31), (anon_sym_pass, ACTIONS 33),
    (anon_sym_break, ACTIONS 35), (anon_sym_continue, ACTIONS 37),
    (anon_sym___extension, ACTIONS 101), (anon_sym___mlir_region, ACTIONS 103),
    (anon_sym_if, ACTIONS 105), (anon_sym_match, ACTIONS 107), (anon_sym_async, ACTIONS 109),
    (anon_sym_for, ACTIONS 111), (anon_sym_while, ACTIONS 113), (anon_sym_try, ACTIONS 115),
    (anon_sym_with, ACTIONS 117), (anon_sym_def, ACTIONS 119), (anon_sym_fn, ACTIONS 119),
    (anon_sym_LBRACK, ACTIONS 59), (anon_sym_LBRACE, ACTIONS 61), (anon_sym_global, ACTIONS 63),
    (anon_sym_nonlocal, ACTIONS 65), (anon_sym_exec, ACTIONS 67), (anon_sym_type, ACTIONS 69),
    (anon_sym_class, ACTIONS 121), (anon_sym_struct, ACTIONS 121), (anon_sym_mut, ACTIONS 73),
    (anon_sym_out, ACTIONS 73), (anon_sym_trait, ACTIONS 123), (anon_sym_AT, ACTIONS 77),
    (anon_sym_DASH, ACTIONS 79), (anon_sym_PLUS, ACTIONS 79), (anon_sym_ref, ACTIONS 81),
    (anon_sym_var, ACTIONS 81), (anon_sym_not, ACTIONS 83), (anon_sym_TILDE, ACTIONS 79),
    (anon_sym_lambda, ACTIONS 85), (anon_sym_yield, ACTIONS 87), (sym_ellipsis, ACTIONS 89),
    (anon_sym___mlir_type, ACTIONS 91), (sym_integer, ACTIONS 93), (sym_float, ACTIONS 89),
    (anon_sym_await, ACTIONS 95), (sym_true, ACTIONS 93), (sym_false, ACTIONS 93),
    (sym_none, ACTIONS 93), (sym_comment, ACTIONS 3), (sym_line_continuation, ACTIONS 3),
    (sym__dedent, ACTIONS 129), (sym_string_start, ACTIONS 97)]"

definition parse_table_182 :: "(nat \<times> nat) list" where "parse_table_182 = [
    (sym__statement, STATE 925), (sym__simple_statements, STATE 925),
    (sym_import_statement, STATE 11814), (sym_future_import_statement, STATE 11814),
    (sym_import_from_statement, STATE 11814), (sym_print_statement, STATE 11814),
    (sym_assert_statement, STATE 11814), (sym_comptime_assert_statement, STATE 11814),
    (sym_expression_statement, STATE 11814), (sym_tuple_expression, STATE 12425),
    (sym_named_expression, STATE 7969), (sym__named_expression_lhs, STATE 12752),
    (sym_return_statement, STATE 11814), (sym_delete_statement, STATE 11814),
    (sym_raise_statement, STATE 11814), (sym_pass_statement, STATE 11814),
    (sym_break_statement, STATE 11814), (sym_continue_statement, STATE 11814),
    (sym_extension_definition, STATE 925), (sym_mlir_region, STATE 925),
    (sym_comptime_statement, STATE 925), (sym_if_statement, STATE 925),
    (sym_match_statement, STATE 925), (sym_for_statement, STATE 925),
    (sym_while_statement, STATE 925), (sym_try_statement, STATE 925),
    (sym_with_statement, STATE 925), (sym_function_definition, STATE 925),
    (sym_global_statement, STATE 11814), (sym_nonlocal_statement, STATE 11814),
    (sym_exec_statement, STATE 11814), (sym_type_alias_statement, STATE 11814),
    (sym_parameterized_alias_statement, STATE 11814), (sym_class_definition, STATE 925),
    (sym_trait_definition, STATE 925), (sym_decorated_definition, STATE 925),
    (sym_decorator, STATE 3670), (sym_block, STATE 5099), (sym_pattern, STATE 8086),
    (sym_tuple_pattern, STATE 8101), (sym_list_pattern, STATE 8101),
    (sym_list_splat_pattern, STATE 6819), (sym_as_pattern, STATE 7969),
    (sym_expression, STATE 9883), (sym_primary_expression, STATE 7326),
    (sym_comptime_expression, STATE 7017), (sym_transfer_expression, STATE 7017),
    (sym_not_operator, STATE 7969), (sym_boolean_operator, STATE 7969),
    (sym_binary_operator, STATE 7017), (sym_unary_operator, STATE 7017),
    (sym_comparison_operator, STATE 7969), (sym_lambda, STATE 7969),
    (sym_assignment, STATE 12425), (sym_augmented_assignment, STATE 12425),
    (sym_pattern_list, STATE 8578), (sym_yield, STATE 12425), (sym_attribute, STATE 6836),
    (sym_subscript, STATE 6838), (sym_call, STATE 6845), (sym_mlir_type, STATE 7017),
    (sym_list, STATE 7017), (sym_set, STATE 7017), (sym_tuple, STATE 7017),
    (sym_dictionary, STATE 7017), (sym_struct_literal, STATE 7017),
    (sym_list_comprehension, STATE 7017), (sym_dictionary_comprehension, STATE 7017),
    (sym_set_comprehension, STATE 7017), (sym_generator_expression, STATE 7017),
    (sym_parenthesized_expression, STATE 7017), (sym_conditional_expression, STATE 7969),
    (sym_concatenated_string, STATE 7017), (sym_string, STATE 6751), (sym_await, STATE 7017),
    (aux_sym_module_repeat1, STATE 925), (aux_sym_decorated_definition_repeat1, STATE 3670),
    (sym_identifier, ACTIONS 9), (anon_sym_import, ACTIONS 11), (anon_sym_from, ACTIONS 13),
    (anon_sym_LPAREN, ACTIONS 15), (anon_sym_STAR, ACTIONS 17), (anon_sym_print, ACTIONS 19),
    (anon_sym_comptime, ACTIONS 99), (anon_sym_assert, ACTIONS 23),
    (anon_sym___comptime_assert, ACTIONS 25), (anon_sym_return, ACTIONS 27),
    (anon_sym_del, ACTIONS 29), (anon_sym_raise, ACTIONS 31), (anon_sym_pass, ACTIONS 33),
    (anon_sym_break, ACTIONS 35), (anon_sym_continue, ACTIONS 37),
    (anon_sym___extension, ACTIONS 101), (anon_sym___mlir_region, ACTIONS 103),
    (anon_sym_if, ACTIONS 105), (anon_sym_match, ACTIONS 107), (anon_sym_async, ACTIONS 109),
    (anon_sym_for, ACTIONS 111), (anon_sym_while, ACTIONS 113), (anon_sym_try, ACTIONS 115),
    (anon_sym_with, ACTIONS 117), (anon_sym_def, ACTIONS 119), (anon_sym_fn, ACTIONS 119),
    (anon_sym_LBRACK, ACTIONS 59), (anon_sym_LBRACE, ACTIONS 61), (anon_sym_global, ACTIONS 63),
    (anon_sym_nonlocal, ACTIONS 65), (anon_sym_exec, ACTIONS 67), (anon_sym_type, ACTIONS 69),
    (anon_sym_class, ACTIONS 121), (anon_sym_struct, ACTIONS 121), (anon_sym_mut, ACTIONS 73),
    (anon_sym_out, ACTIONS 73), (anon_sym_trait, ACTIONS 123), (anon_sym_AT, ACTIONS 77),
    (anon_sym_DASH, ACTIONS 79), (anon_sym_PLUS, ACTIONS 79), (anon_sym_ref, ACTIONS 81),
    (anon_sym_var, ACTIONS 81), (anon_sym_not, ACTIONS 83), (anon_sym_TILDE, ACTIONS 79),
    (anon_sym_lambda, ACTIONS 85), (anon_sym_yield, ACTIONS 87), (sym_ellipsis, ACTIONS 89),
    (anon_sym___mlir_type, ACTIONS 91), (sym_integer, ACTIONS 93), (sym_float, ACTIONS 89),
    (anon_sym_await, ACTIONS 95), (sym_true, ACTIONS 93), (sym_false, ACTIONS 93),
    (sym_none, ACTIONS 93), (sym_comment, ACTIONS 3), (sym_line_continuation, ACTIONS 3),
    (sym__dedent, ACTIONS 129), (sym_string_start, ACTIONS 97)]"

definition parse_table_183 :: "(nat \<times> nat) list" where "parse_table_183 = [
    (sym__statement, STATE 925), (sym__simple_statements, STATE 925),
    (sym_import_statement, STATE 11814), (sym_future_import_statement, STATE 11814),
    (sym_import_from_statement, STATE 11814), (sym_print_statement, STATE 11814),
    (sym_assert_statement, STATE 11814), (sym_comptime_assert_statement, STATE 11814),
    (sym_expression_statement, STATE 11814), (sym_tuple_expression, STATE 12425),
    (sym_named_expression, STATE 7969), (sym__named_expression_lhs, STATE 12752),
    (sym_return_statement, STATE 11814), (sym_delete_statement, STATE 11814),
    (sym_raise_statement, STATE 11814), (sym_pass_statement, STATE 11814),
    (sym_break_statement, STATE 11814), (sym_continue_statement, STATE 11814),
    (sym_extension_definition, STATE 925), (sym_mlir_region, STATE 925),
    (sym_comptime_statement, STATE 925), (sym_if_statement, STATE 925),
    (sym_match_statement, STATE 925), (sym_for_statement, STATE 925),
    (sym_while_statement, STATE 925), (sym_try_statement, STATE 925),
    (sym_with_statement, STATE 925), (sym_function_definition, STATE 925),
    (sym_global_statement, STATE 11814), (sym_nonlocal_statement, STATE 11814),
    (sym_exec_statement, STATE 11814), (sym_type_alias_statement, STATE 11814),
    (sym_parameterized_alias_statement, STATE 11814), (sym_class_definition, STATE 925),
    (sym_trait_definition, STATE 925), (sym_decorated_definition, STATE 925),
    (sym_decorator, STATE 3670), (sym_block, STATE 5100), (sym_pattern, STATE 8086),
    (sym_tuple_pattern, STATE 8101), (sym_list_pattern, STATE 8101),
    (sym_list_splat_pattern, STATE 6819), (sym_as_pattern, STATE 7969),
    (sym_expression, STATE 9883), (sym_primary_expression, STATE 7326),
    (sym_comptime_expression, STATE 7017), (sym_transfer_expression, STATE 7017),
    (sym_not_operator, STATE 7969), (sym_boolean_operator, STATE 7969),
    (sym_binary_operator, STATE 7017), (sym_unary_operator, STATE 7017),
    (sym_comparison_operator, STATE 7969), (sym_lambda, STATE 7969),
    (sym_assignment, STATE 12425), (sym_augmented_assignment, STATE 12425),
    (sym_pattern_list, STATE 8578), (sym_yield, STATE 12425), (sym_attribute, STATE 6836),
    (sym_subscript, STATE 6838), (sym_call, STATE 6845), (sym_mlir_type, STATE 7017),
    (sym_list, STATE 7017), (sym_set, STATE 7017), (sym_tuple, STATE 7017),
    (sym_dictionary, STATE 7017), (sym_struct_literal, STATE 7017),
    (sym_list_comprehension, STATE 7017), (sym_dictionary_comprehension, STATE 7017),
    (sym_set_comprehension, STATE 7017), (sym_generator_expression, STATE 7017),
    (sym_parenthesized_expression, STATE 7017), (sym_conditional_expression, STATE 7969),
    (sym_concatenated_string, STATE 7017), (sym_string, STATE 6751), (sym_await, STATE 7017),
    (aux_sym_module_repeat1, STATE 925), (aux_sym_decorated_definition_repeat1, STATE 3670),
    (sym_identifier, ACTIONS 9), (anon_sym_import, ACTIONS 11), (anon_sym_from, ACTIONS 13),
    (anon_sym_LPAREN, ACTIONS 15), (anon_sym_STAR, ACTIONS 17), (anon_sym_print, ACTIONS 19),
    (anon_sym_comptime, ACTIONS 99), (anon_sym_assert, ACTIONS 23),
    (anon_sym___comptime_assert, ACTIONS 25), (anon_sym_return, ACTIONS 27),
    (anon_sym_del, ACTIONS 29), (anon_sym_raise, ACTIONS 31), (anon_sym_pass, ACTIONS 33),
    (anon_sym_break, ACTIONS 35), (anon_sym_continue, ACTIONS 37),
    (anon_sym___extension, ACTIONS 101), (anon_sym___mlir_region, ACTIONS 103),
    (anon_sym_if, ACTIONS 105), (anon_sym_match, ACTIONS 107), (anon_sym_async, ACTIONS 109),
    (anon_sym_for, ACTIONS 111), (anon_sym_while, ACTIONS 113), (anon_sym_try, ACTIONS 115),
    (anon_sym_with, ACTIONS 117), (anon_sym_def, ACTIONS 119), (anon_sym_fn, ACTIONS 119),
    (anon_sym_LBRACK, ACTIONS 59), (anon_sym_LBRACE, ACTIONS 61), (anon_sym_global, ACTIONS 63),
    (anon_sym_nonlocal, ACTIONS 65), (anon_sym_exec, ACTIONS 67), (anon_sym_type, ACTIONS 69),
    (anon_sym_class, ACTIONS 121), (anon_sym_struct, ACTIONS 121), (anon_sym_mut, ACTIONS 73),
    (anon_sym_out, ACTIONS 73), (anon_sym_trait, ACTIONS 123), (anon_sym_AT, ACTIONS 77),
    (anon_sym_DASH, ACTIONS 79), (anon_sym_PLUS, ACTIONS 79), (anon_sym_ref, ACTIONS 81),
    (anon_sym_var, ACTIONS 81), (anon_sym_not, ACTIONS 83), (anon_sym_TILDE, ACTIONS 79),
    (anon_sym_lambda, ACTIONS 85), (anon_sym_yield, ACTIONS 87), (sym_ellipsis, ACTIONS 89),
    (anon_sym___mlir_type, ACTIONS 91), (sym_integer, ACTIONS 93), (sym_float, ACTIONS 89),
    (anon_sym_await, ACTIONS 95), (sym_true, ACTIONS 93), (sym_false, ACTIONS 93),
    (sym_none, ACTIONS 93), (sym_comment, ACTIONS 3), (sym_line_continuation, ACTIONS 3),
    (sym__dedent, ACTIONS 129), (sym_string_start, ACTIONS 97)]"

definition parse_table_184 :: "(nat \<times> nat) list" where "parse_table_184 = [
    (sym__statement, STATE 925), (sym__simple_statements, STATE 925),
    (sym_import_statement, STATE 11814), (sym_future_import_statement, STATE 11814),
    (sym_import_from_statement, STATE 11814), (sym_print_statement, STATE 11814),
    (sym_assert_statement, STATE 11814), (sym_comptime_assert_statement, STATE 11814),
    (sym_expression_statement, STATE 11814), (sym_tuple_expression, STATE 12425),
    (sym_named_expression, STATE 7969), (sym__named_expression_lhs, STATE 12752),
    (sym_return_statement, STATE 11814), (sym_delete_statement, STATE 11814),
    (sym_raise_statement, STATE 11814), (sym_pass_statement, STATE 11814),
    (sym_break_statement, STATE 11814), (sym_continue_statement, STATE 11814),
    (sym_extension_definition, STATE 925), (sym_mlir_region, STATE 925),
    (sym_comptime_statement, STATE 925), (sym_if_statement, STATE 925),
    (sym_match_statement, STATE 925), (sym_for_statement, STATE 925),
    (sym_while_statement, STATE 925), (sym_try_statement, STATE 925),
    (sym_with_statement, STATE 925), (sym_function_definition, STATE 925),
    (sym_global_statement, STATE 11814), (sym_nonlocal_statement, STATE 11814),
    (sym_exec_statement, STATE 11814), (sym_type_alias_statement, STATE 11814),
    (sym_parameterized_alias_statement, STATE 11814), (sym_class_definition, STATE 925),
    (sym_trait_definition, STATE 925), (sym_decorated_definition, STATE 925),
    (sym_decorator, STATE 3670), (sym_block, STATE 5101), (sym_pattern, STATE 8086),
    (sym_tuple_pattern, STATE 8101), (sym_list_pattern, STATE 8101),
    (sym_list_splat_pattern, STATE 6819), (sym_as_pattern, STATE 7969),
    (sym_expression, STATE 9883), (sym_primary_expression, STATE 7326),
    (sym_comptime_expression, STATE 7017), (sym_transfer_expression, STATE 7017),
    (sym_not_operator, STATE 7969), (sym_boolean_operator, STATE 7969),
    (sym_binary_operator, STATE 7017), (sym_unary_operator, STATE 7017),
    (sym_comparison_operator, STATE 7969), (sym_lambda, STATE 7969),
    (sym_assignment, STATE 12425), (sym_augmented_assignment, STATE 12425),
    (sym_pattern_list, STATE 8578), (sym_yield, STATE 12425), (sym_attribute, STATE 6836),
    (sym_subscript, STATE 6838), (sym_call, STATE 6845), (sym_mlir_type, STATE 7017),
    (sym_list, STATE 7017), (sym_set, STATE 7017), (sym_tuple, STATE 7017),
    (sym_dictionary, STATE 7017), (sym_struct_literal, STATE 7017),
    (sym_list_comprehension, STATE 7017), (sym_dictionary_comprehension, STATE 7017),
    (sym_set_comprehension, STATE 7017), (sym_generator_expression, STATE 7017),
    (sym_parenthesized_expression, STATE 7017), (sym_conditional_expression, STATE 7969),
    (sym_concatenated_string, STATE 7017), (sym_string, STATE 6751), (sym_await, STATE 7017),
    (aux_sym_module_repeat1, STATE 925), (aux_sym_decorated_definition_repeat1, STATE 3670),
    (sym_identifier, ACTIONS 9), (anon_sym_import, ACTIONS 11), (anon_sym_from, ACTIONS 13),
    (anon_sym_LPAREN, ACTIONS 15), (anon_sym_STAR, ACTIONS 17), (anon_sym_print, ACTIONS 19),
    (anon_sym_comptime, ACTIONS 99), (anon_sym_assert, ACTIONS 23),
    (anon_sym___comptime_assert, ACTIONS 25), (anon_sym_return, ACTIONS 27),
    (anon_sym_del, ACTIONS 29), (anon_sym_raise, ACTIONS 31), (anon_sym_pass, ACTIONS 33),
    (anon_sym_break, ACTIONS 35), (anon_sym_continue, ACTIONS 37),
    (anon_sym___extension, ACTIONS 101), (anon_sym___mlir_region, ACTIONS 103),
    (anon_sym_if, ACTIONS 105), (anon_sym_match, ACTIONS 107), (anon_sym_async, ACTIONS 109),
    (anon_sym_for, ACTIONS 111), (anon_sym_while, ACTIONS 113), (anon_sym_try, ACTIONS 115),
    (anon_sym_with, ACTIONS 117), (anon_sym_def, ACTIONS 119), (anon_sym_fn, ACTIONS 119),
    (anon_sym_LBRACK, ACTIONS 59), (anon_sym_LBRACE, ACTIONS 61), (anon_sym_global, ACTIONS 63),
    (anon_sym_nonlocal, ACTIONS 65), (anon_sym_exec, ACTIONS 67), (anon_sym_type, ACTIONS 69),
    (anon_sym_class, ACTIONS 121), (anon_sym_struct, ACTIONS 121), (anon_sym_mut, ACTIONS 73),
    (anon_sym_out, ACTIONS 73), (anon_sym_trait, ACTIONS 123), (anon_sym_AT, ACTIONS 77),
    (anon_sym_DASH, ACTIONS 79), (anon_sym_PLUS, ACTIONS 79), (anon_sym_ref, ACTIONS 81),
    (anon_sym_var, ACTIONS 81), (anon_sym_not, ACTIONS 83), (anon_sym_TILDE, ACTIONS 79),
    (anon_sym_lambda, ACTIONS 85), (anon_sym_yield, ACTIONS 87), (sym_ellipsis, ACTIONS 89),
    (anon_sym___mlir_type, ACTIONS 91), (sym_integer, ACTIONS 93), (sym_float, ACTIONS 89),
    (anon_sym_await, ACTIONS 95), (sym_true, ACTIONS 93), (sym_false, ACTIONS 93),
    (sym_none, ACTIONS 93), (sym_comment, ACTIONS 3), (sym_line_continuation, ACTIONS 3),
    (sym__dedent, ACTIONS 129), (sym_string_start, ACTIONS 97)]"

definition parse_table_185 :: "(nat \<times> nat) list" where "parse_table_185 = [
    (sym__statement, STATE 925), (sym__simple_statements, STATE 925),
    (sym_import_statement, STATE 11814), (sym_future_import_statement, STATE 11814),
    (sym_import_from_statement, STATE 11814), (sym_print_statement, STATE 11814),
    (sym_assert_statement, STATE 11814), (sym_comptime_assert_statement, STATE 11814),
    (sym_expression_statement, STATE 11814), (sym_tuple_expression, STATE 12425),
    (sym_named_expression, STATE 7969), (sym__named_expression_lhs, STATE 12752),
    (sym_return_statement, STATE 11814), (sym_delete_statement, STATE 11814),
    (sym_raise_statement, STATE 11814), (sym_pass_statement, STATE 11814),
    (sym_break_statement, STATE 11814), (sym_continue_statement, STATE 11814),
    (sym_extension_definition, STATE 925), (sym_mlir_region, STATE 925),
    (sym_comptime_statement, STATE 925), (sym_if_statement, STATE 925),
    (sym_match_statement, STATE 925), (sym_for_statement, STATE 925),
    (sym_while_statement, STATE 925), (sym_try_statement, STATE 925),
    (sym_with_statement, STATE 925), (sym_function_definition, STATE 925),
    (sym_global_statement, STATE 11814), (sym_nonlocal_statement, STATE 11814),
    (sym_exec_statement, STATE 11814), (sym_type_alias_statement, STATE 11814),
    (sym_parameterized_alias_statement, STATE 11814), (sym_class_definition, STATE 925),
    (sym_trait_definition, STATE 925), (sym_decorated_definition, STATE 925),
    (sym_decorator, STATE 3670), (sym_block, STATE 5105), (sym_pattern, STATE 8086),
    (sym_tuple_pattern, STATE 8101), (sym_list_pattern, STATE 8101),
    (sym_list_splat_pattern, STATE 6819), (sym_as_pattern, STATE 7969),
    (sym_expression, STATE 9883), (sym_primary_expression, STATE 7326),
    (sym_comptime_expression, STATE 7017), (sym_transfer_expression, STATE 7017),
    (sym_not_operator, STATE 7969), (sym_boolean_operator, STATE 7969),
    (sym_binary_operator, STATE 7017), (sym_unary_operator, STATE 7017),
    (sym_comparison_operator, STATE 7969), (sym_lambda, STATE 7969),
    (sym_assignment, STATE 12425), (sym_augmented_assignment, STATE 12425),
    (sym_pattern_list, STATE 8578), (sym_yield, STATE 12425), (sym_attribute, STATE 6836),
    (sym_subscript, STATE 6838), (sym_call, STATE 6845), (sym_mlir_type, STATE 7017),
    (sym_list, STATE 7017), (sym_set, STATE 7017), (sym_tuple, STATE 7017),
    (sym_dictionary, STATE 7017), (sym_struct_literal, STATE 7017),
    (sym_list_comprehension, STATE 7017), (sym_dictionary_comprehension, STATE 7017),
    (sym_set_comprehension, STATE 7017), (sym_generator_expression, STATE 7017),
    (sym_parenthesized_expression, STATE 7017), (sym_conditional_expression, STATE 7969),
    (sym_concatenated_string, STATE 7017), (sym_string, STATE 6751), (sym_await, STATE 7017),
    (aux_sym_module_repeat1, STATE 925), (aux_sym_decorated_definition_repeat1, STATE 3670),
    (sym_identifier, ACTIONS 9), (anon_sym_import, ACTIONS 11), (anon_sym_from, ACTIONS 13),
    (anon_sym_LPAREN, ACTIONS 15), (anon_sym_STAR, ACTIONS 17), (anon_sym_print, ACTIONS 19),
    (anon_sym_comptime, ACTIONS 99), (anon_sym_assert, ACTIONS 23),
    (anon_sym___comptime_assert, ACTIONS 25), (anon_sym_return, ACTIONS 27),
    (anon_sym_del, ACTIONS 29), (anon_sym_raise, ACTIONS 31), (anon_sym_pass, ACTIONS 33),
    (anon_sym_break, ACTIONS 35), (anon_sym_continue, ACTIONS 37),
    (anon_sym___extension, ACTIONS 101), (anon_sym___mlir_region, ACTIONS 103),
    (anon_sym_if, ACTIONS 105), (anon_sym_match, ACTIONS 107), (anon_sym_async, ACTIONS 109),
    (anon_sym_for, ACTIONS 111), (anon_sym_while, ACTIONS 113), (anon_sym_try, ACTIONS 115),
    (anon_sym_with, ACTIONS 117), (anon_sym_def, ACTIONS 119), (anon_sym_fn, ACTIONS 119),
    (anon_sym_LBRACK, ACTIONS 59), (anon_sym_LBRACE, ACTIONS 61), (anon_sym_global, ACTIONS 63),
    (anon_sym_nonlocal, ACTIONS 65), (anon_sym_exec, ACTIONS 67), (anon_sym_type, ACTIONS 69),
    (anon_sym_class, ACTIONS 121), (anon_sym_struct, ACTIONS 121), (anon_sym_mut, ACTIONS 73),
    (anon_sym_out, ACTIONS 73), (anon_sym_trait, ACTIONS 123), (anon_sym_AT, ACTIONS 77),
    (anon_sym_DASH, ACTIONS 79), (anon_sym_PLUS, ACTIONS 79), (anon_sym_ref, ACTIONS 81),
    (anon_sym_var, ACTIONS 81), (anon_sym_not, ACTIONS 83), (anon_sym_TILDE, ACTIONS 79),
    (anon_sym_lambda, ACTIONS 85), (anon_sym_yield, ACTIONS 87), (sym_ellipsis, ACTIONS 89),
    (anon_sym___mlir_type, ACTIONS 91), (sym_integer, ACTIONS 93), (sym_float, ACTIONS 89),
    (anon_sym_await, ACTIONS 95), (sym_true, ACTIONS 93), (sym_false, ACTIONS 93),
    (sym_none, ACTIONS 93), (sym_comment, ACTIONS 3), (sym_line_continuation, ACTIONS 3),
    (sym__dedent, ACTIONS 129), (sym_string_start, ACTIONS 97)]"

definition parse_table_186 :: "(nat \<times> nat) list" where "parse_table_186 = [
    (sym__statement, STATE 925), (sym__simple_statements, STATE 925),
    (sym_import_statement, STATE 11814), (sym_future_import_statement, STATE 11814),
    (sym_import_from_statement, STATE 11814), (sym_print_statement, STATE 11814),
    (sym_assert_statement, STATE 11814), (sym_comptime_assert_statement, STATE 11814),
    (sym_expression_statement, STATE 11814), (sym_tuple_expression, STATE 12425),
    (sym_named_expression, STATE 7969), (sym__named_expression_lhs, STATE 12752),
    (sym_return_statement, STATE 11814), (sym_delete_statement, STATE 11814),
    (sym_raise_statement, STATE 11814), (sym_pass_statement, STATE 11814),
    (sym_break_statement, STATE 11814), (sym_continue_statement, STATE 11814),
    (sym_extension_definition, STATE 925), (sym_mlir_region, STATE 925),
    (sym_comptime_statement, STATE 925), (sym_if_statement, STATE 925),
    (sym_match_statement, STATE 925), (sym_for_statement, STATE 925),
    (sym_while_statement, STATE 925), (sym_try_statement, STATE 925),
    (sym_with_statement, STATE 925), (sym_function_definition, STATE 925),
    (sym_global_statement, STATE 11814), (sym_nonlocal_statement, STATE 11814),
    (sym_exec_statement, STATE 11814), (sym_type_alias_statement, STATE 11814),
    (sym_parameterized_alias_statement, STATE 11814), (sym_class_definition, STATE 925),
    (sym_trait_definition, STATE 925), (sym_decorated_definition, STATE 925),
    (sym_decorator, STATE 3670), (sym_block, STATE 5106), (sym_pattern, STATE 8086),
    (sym_tuple_pattern, STATE 8101), (sym_list_pattern, STATE 8101),
    (sym_list_splat_pattern, STATE 6819), (sym_as_pattern, STATE 7969),
    (sym_expression, STATE 9883), (sym_primary_expression, STATE 7326),
    (sym_comptime_expression, STATE 7017), (sym_transfer_expression, STATE 7017),
    (sym_not_operator, STATE 7969), (sym_boolean_operator, STATE 7969),
    (sym_binary_operator, STATE 7017), (sym_unary_operator, STATE 7017),
    (sym_comparison_operator, STATE 7969), (sym_lambda, STATE 7969),
    (sym_assignment, STATE 12425), (sym_augmented_assignment, STATE 12425),
    (sym_pattern_list, STATE 8578), (sym_yield, STATE 12425), (sym_attribute, STATE 6836),
    (sym_subscript, STATE 6838), (sym_call, STATE 6845), (sym_mlir_type, STATE 7017),
    (sym_list, STATE 7017), (sym_set, STATE 7017), (sym_tuple, STATE 7017),
    (sym_dictionary, STATE 7017), (sym_struct_literal, STATE 7017),
    (sym_list_comprehension, STATE 7017), (sym_dictionary_comprehension, STATE 7017),
    (sym_set_comprehension, STATE 7017), (sym_generator_expression, STATE 7017),
    (sym_parenthesized_expression, STATE 7017), (sym_conditional_expression, STATE 7969),
    (sym_concatenated_string, STATE 7017), (sym_string, STATE 6751), (sym_await, STATE 7017),
    (aux_sym_module_repeat1, STATE 925), (aux_sym_decorated_definition_repeat1, STATE 3670),
    (sym_identifier, ACTIONS 9), (anon_sym_import, ACTIONS 11), (anon_sym_from, ACTIONS 13),
    (anon_sym_LPAREN, ACTIONS 15), (anon_sym_STAR, ACTIONS 17), (anon_sym_print, ACTIONS 19),
    (anon_sym_comptime, ACTIONS 99), (anon_sym_assert, ACTIONS 23),
    (anon_sym___comptime_assert, ACTIONS 25), (anon_sym_return, ACTIONS 27),
    (anon_sym_del, ACTIONS 29), (anon_sym_raise, ACTIONS 31), (anon_sym_pass, ACTIONS 33),
    (anon_sym_break, ACTIONS 35), (anon_sym_continue, ACTIONS 37),
    (anon_sym___extension, ACTIONS 101), (anon_sym___mlir_region, ACTIONS 103),
    (anon_sym_if, ACTIONS 105), (anon_sym_match, ACTIONS 107), (anon_sym_async, ACTIONS 109),
    (anon_sym_for, ACTIONS 111), (anon_sym_while, ACTIONS 113), (anon_sym_try, ACTIONS 115),
    (anon_sym_with, ACTIONS 117), (anon_sym_def, ACTIONS 119), (anon_sym_fn, ACTIONS 119),
    (anon_sym_LBRACK, ACTIONS 59), (anon_sym_LBRACE, ACTIONS 61), (anon_sym_global, ACTIONS 63),
    (anon_sym_nonlocal, ACTIONS 65), (anon_sym_exec, ACTIONS 67), (anon_sym_type, ACTIONS 69),
    (anon_sym_class, ACTIONS 121), (anon_sym_struct, ACTIONS 121), (anon_sym_mut, ACTIONS 73),
    (anon_sym_out, ACTIONS 73), (anon_sym_trait, ACTIONS 123), (anon_sym_AT, ACTIONS 77),
    (anon_sym_DASH, ACTIONS 79), (anon_sym_PLUS, ACTIONS 79), (anon_sym_ref, ACTIONS 81),
    (anon_sym_var, ACTIONS 81), (anon_sym_not, ACTIONS 83), (anon_sym_TILDE, ACTIONS 79),
    (anon_sym_lambda, ACTIONS 85), (anon_sym_yield, ACTIONS 87), (sym_ellipsis, ACTIONS 89),
    (anon_sym___mlir_type, ACTIONS 91), (sym_integer, ACTIONS 93), (sym_float, ACTIONS 89),
    (anon_sym_await, ACTIONS 95), (sym_true, ACTIONS 93), (sym_false, ACTIONS 93),
    (sym_none, ACTIONS 93), (sym_comment, ACTIONS 3), (sym_line_continuation, ACTIONS 3),
    (sym__dedent, ACTIONS 129), (sym_string_start, ACTIONS 97)]"

definition parse_table_187 :: "(nat \<times> nat) list" where "parse_table_187 = [
    (sym__statement, STATE 925), (sym__simple_statements, STATE 925),
    (sym_import_statement, STATE 11814), (sym_future_import_statement, STATE 11814),
    (sym_import_from_statement, STATE 11814), (sym_print_statement, STATE 11814),
    (sym_assert_statement, STATE 11814), (sym_comptime_assert_statement, STATE 11814),
    (sym_expression_statement, STATE 11814), (sym_tuple_expression, STATE 12425),
    (sym_named_expression, STATE 7969), (sym__named_expression_lhs, STATE 12752),
    (sym_return_statement, STATE 11814), (sym_delete_statement, STATE 11814),
    (sym_raise_statement, STATE 11814), (sym_pass_statement, STATE 11814),
    (sym_break_statement, STATE 11814), (sym_continue_statement, STATE 11814),
    (sym_extension_definition, STATE 925), (sym_mlir_region, STATE 925),
    (sym_comptime_statement, STATE 925), (sym_if_statement, STATE 925),
    (sym_match_statement, STATE 925), (sym_for_statement, STATE 925),
    (sym_while_statement, STATE 925), (sym_try_statement, STATE 925),
    (sym_with_statement, STATE 925), (sym_function_definition, STATE 925),
    (sym_global_statement, STATE 11814), (sym_nonlocal_statement, STATE 11814),
    (sym_exec_statement, STATE 11814), (sym_type_alias_statement, STATE 11814),
    (sym_parameterized_alias_statement, STATE 11814), (sym_class_definition, STATE 925),
    (sym_trait_definition, STATE 925), (sym_decorated_definition, STATE 925),
    (sym_decorator, STATE 3670), (sym_block, STATE 5107), (sym_pattern, STATE 8086),
    (sym_tuple_pattern, STATE 8101), (sym_list_pattern, STATE 8101),
    (sym_list_splat_pattern, STATE 6819), (sym_as_pattern, STATE 7969),
    (sym_expression, STATE 9883), (sym_primary_expression, STATE 7326),
    (sym_comptime_expression, STATE 7017), (sym_transfer_expression, STATE 7017),
    (sym_not_operator, STATE 7969), (sym_boolean_operator, STATE 7969),
    (sym_binary_operator, STATE 7017), (sym_unary_operator, STATE 7017),
    (sym_comparison_operator, STATE 7969), (sym_lambda, STATE 7969),
    (sym_assignment, STATE 12425), (sym_augmented_assignment, STATE 12425),
    (sym_pattern_list, STATE 8578), (sym_yield, STATE 12425), (sym_attribute, STATE 6836),
    (sym_subscript, STATE 6838), (sym_call, STATE 6845), (sym_mlir_type, STATE 7017),
    (sym_list, STATE 7017), (sym_set, STATE 7017), (sym_tuple, STATE 7017),
    (sym_dictionary, STATE 7017), (sym_struct_literal, STATE 7017),
    (sym_list_comprehension, STATE 7017), (sym_dictionary_comprehension, STATE 7017),
    (sym_set_comprehension, STATE 7017), (sym_generator_expression, STATE 7017),
    (sym_parenthesized_expression, STATE 7017), (sym_conditional_expression, STATE 7969),
    (sym_concatenated_string, STATE 7017), (sym_string, STATE 6751), (sym_await, STATE 7017),
    (aux_sym_module_repeat1, STATE 925), (aux_sym_decorated_definition_repeat1, STATE 3670),
    (sym_identifier, ACTIONS 9), (anon_sym_import, ACTIONS 11), (anon_sym_from, ACTIONS 13),
    (anon_sym_LPAREN, ACTIONS 15), (anon_sym_STAR, ACTIONS 17), (anon_sym_print, ACTIONS 19),
    (anon_sym_comptime, ACTIONS 99), (anon_sym_assert, ACTIONS 23),
    (anon_sym___comptime_assert, ACTIONS 25), (anon_sym_return, ACTIONS 27),
    (anon_sym_del, ACTIONS 29), (anon_sym_raise, ACTIONS 31), (anon_sym_pass, ACTIONS 33),
    (anon_sym_break, ACTIONS 35), (anon_sym_continue, ACTIONS 37),
    (anon_sym___extension, ACTIONS 101), (anon_sym___mlir_region, ACTIONS 103),
    (anon_sym_if, ACTIONS 105), (anon_sym_match, ACTIONS 107), (anon_sym_async, ACTIONS 109),
    (anon_sym_for, ACTIONS 111), (anon_sym_while, ACTIONS 113), (anon_sym_try, ACTIONS 115),
    (anon_sym_with, ACTIONS 117), (anon_sym_def, ACTIONS 119), (anon_sym_fn, ACTIONS 119),
    (anon_sym_LBRACK, ACTIONS 59), (anon_sym_LBRACE, ACTIONS 61), (anon_sym_global, ACTIONS 63),
    (anon_sym_nonlocal, ACTIONS 65), (anon_sym_exec, ACTIONS 67), (anon_sym_type, ACTIONS 69),
    (anon_sym_class, ACTIONS 121), (anon_sym_struct, ACTIONS 121), (anon_sym_mut, ACTIONS 73),
    (anon_sym_out, ACTIONS 73), (anon_sym_trait, ACTIONS 123), (anon_sym_AT, ACTIONS 77),
    (anon_sym_DASH, ACTIONS 79), (anon_sym_PLUS, ACTIONS 79), (anon_sym_ref, ACTIONS 81),
    (anon_sym_var, ACTIONS 81), (anon_sym_not, ACTIONS 83), (anon_sym_TILDE, ACTIONS 79),
    (anon_sym_lambda, ACTIONS 85), (anon_sym_yield, ACTIONS 87), (sym_ellipsis, ACTIONS 89),
    (anon_sym___mlir_type, ACTIONS 91), (sym_integer, ACTIONS 93), (sym_float, ACTIONS 89),
    (anon_sym_await, ACTIONS 95), (sym_true, ACTIONS 93), (sym_false, ACTIONS 93),
    (sym_none, ACTIONS 93), (sym_comment, ACTIONS 3), (sym_line_continuation, ACTIONS 3),
    (sym__dedent, ACTIONS 129), (sym_string_start, ACTIONS 97)]"

definition parse_table_188 :: "(nat \<times> nat) list" where "parse_table_188 = [
    (sym__statement, STATE 925), (sym__simple_statements, STATE 925),
    (sym_import_statement, STATE 11814), (sym_future_import_statement, STATE 11814),
    (sym_import_from_statement, STATE 11814), (sym_print_statement, STATE 11814),
    (sym_assert_statement, STATE 11814), (sym_comptime_assert_statement, STATE 11814),
    (sym_expression_statement, STATE 11814), (sym_tuple_expression, STATE 12425),
    (sym_named_expression, STATE 7969), (sym__named_expression_lhs, STATE 12752),
    (sym_return_statement, STATE 11814), (sym_delete_statement, STATE 11814),
    (sym_raise_statement, STATE 11814), (sym_pass_statement, STATE 11814),
    (sym_break_statement, STATE 11814), (sym_continue_statement, STATE 11814),
    (sym_extension_definition, STATE 925), (sym_mlir_region, STATE 925),
    (sym_comptime_statement, STATE 925), (sym_if_statement, STATE 925),
    (sym_match_statement, STATE 925), (sym_for_statement, STATE 925),
    (sym_while_statement, STATE 925), (sym_try_statement, STATE 925),
    (sym_with_statement, STATE 925), (sym_function_definition, STATE 925),
    (sym_global_statement, STATE 11814), (sym_nonlocal_statement, STATE 11814),
    (sym_exec_statement, STATE 11814), (sym_type_alias_statement, STATE 11814),
    (sym_parameterized_alias_statement, STATE 11814), (sym_class_definition, STATE 925),
    (sym_trait_definition, STATE 925), (sym_decorated_definition, STATE 925),
    (sym_decorator, STATE 3670), (sym_block, STATE 5108), (sym_pattern, STATE 8086),
    (sym_tuple_pattern, STATE 8101), (sym_list_pattern, STATE 8101),
    (sym_list_splat_pattern, STATE 6819), (sym_as_pattern, STATE 7969),
    (sym_expression, STATE 9883), (sym_primary_expression, STATE 7326),
    (sym_comptime_expression, STATE 7017), (sym_transfer_expression, STATE 7017),
    (sym_not_operator, STATE 7969), (sym_boolean_operator, STATE 7969),
    (sym_binary_operator, STATE 7017), (sym_unary_operator, STATE 7017),
    (sym_comparison_operator, STATE 7969), (sym_lambda, STATE 7969),
    (sym_assignment, STATE 12425), (sym_augmented_assignment, STATE 12425),
    (sym_pattern_list, STATE 8578), (sym_yield, STATE 12425), (sym_attribute, STATE 6836),
    (sym_subscript, STATE 6838), (sym_call, STATE 6845), (sym_mlir_type, STATE 7017),
    (sym_list, STATE 7017), (sym_set, STATE 7017), (sym_tuple, STATE 7017),
    (sym_dictionary, STATE 7017), (sym_struct_literal, STATE 7017),
    (sym_list_comprehension, STATE 7017), (sym_dictionary_comprehension, STATE 7017),
    (sym_set_comprehension, STATE 7017), (sym_generator_expression, STATE 7017),
    (sym_parenthesized_expression, STATE 7017), (sym_conditional_expression, STATE 7969),
    (sym_concatenated_string, STATE 7017), (sym_string, STATE 6751), (sym_await, STATE 7017),
    (aux_sym_module_repeat1, STATE 925), (aux_sym_decorated_definition_repeat1, STATE 3670),
    (sym_identifier, ACTIONS 9), (anon_sym_import, ACTIONS 11), (anon_sym_from, ACTIONS 13),
    (anon_sym_LPAREN, ACTIONS 15), (anon_sym_STAR, ACTIONS 17), (anon_sym_print, ACTIONS 19),
    (anon_sym_comptime, ACTIONS 99), (anon_sym_assert, ACTIONS 23),
    (anon_sym___comptime_assert, ACTIONS 25), (anon_sym_return, ACTIONS 27),
    (anon_sym_del, ACTIONS 29), (anon_sym_raise, ACTIONS 31), (anon_sym_pass, ACTIONS 33),
    (anon_sym_break, ACTIONS 35), (anon_sym_continue, ACTIONS 37),
    (anon_sym___extension, ACTIONS 101), (anon_sym___mlir_region, ACTIONS 103),
    (anon_sym_if, ACTIONS 105), (anon_sym_match, ACTIONS 107), (anon_sym_async, ACTIONS 109),
    (anon_sym_for, ACTIONS 111), (anon_sym_while, ACTIONS 113), (anon_sym_try, ACTIONS 115),
    (anon_sym_with, ACTIONS 117), (anon_sym_def, ACTIONS 119), (anon_sym_fn, ACTIONS 119),
    (anon_sym_LBRACK, ACTIONS 59), (anon_sym_LBRACE, ACTIONS 61), (anon_sym_global, ACTIONS 63),
    (anon_sym_nonlocal, ACTIONS 65), (anon_sym_exec, ACTIONS 67), (anon_sym_type, ACTIONS 69),
    (anon_sym_class, ACTIONS 121), (anon_sym_struct, ACTIONS 121), (anon_sym_mut, ACTIONS 73),
    (anon_sym_out, ACTIONS 73), (anon_sym_trait, ACTIONS 123), (anon_sym_AT, ACTIONS 77),
    (anon_sym_DASH, ACTIONS 79), (anon_sym_PLUS, ACTIONS 79), (anon_sym_ref, ACTIONS 81),
    (anon_sym_var, ACTIONS 81), (anon_sym_not, ACTIONS 83), (anon_sym_TILDE, ACTIONS 79),
    (anon_sym_lambda, ACTIONS 85), (anon_sym_yield, ACTIONS 87), (sym_ellipsis, ACTIONS 89),
    (anon_sym___mlir_type, ACTIONS 91), (sym_integer, ACTIONS 93), (sym_float, ACTIONS 89),
    (anon_sym_await, ACTIONS 95), (sym_true, ACTIONS 93), (sym_false, ACTIONS 93),
    (sym_none, ACTIONS 93), (sym_comment, ACTIONS 3), (sym_line_continuation, ACTIONS 3),
    (sym__dedent, ACTIONS 129), (sym_string_start, ACTIONS 97)]"

definition parse_table_189 :: "(nat \<times> nat) list" where "parse_table_189 = [
    (sym__statement, STATE 925), (sym__simple_statements, STATE 925),
    (sym_import_statement, STATE 11814), (sym_future_import_statement, STATE 11814),
    (sym_import_from_statement, STATE 11814), (sym_print_statement, STATE 11814),
    (sym_assert_statement, STATE 11814), (sym_comptime_assert_statement, STATE 11814),
    (sym_expression_statement, STATE 11814), (sym_tuple_expression, STATE 12425),
    (sym_named_expression, STATE 7969), (sym__named_expression_lhs, STATE 12752),
    (sym_return_statement, STATE 11814), (sym_delete_statement, STATE 11814),
    (sym_raise_statement, STATE 11814), (sym_pass_statement, STATE 11814),
    (sym_break_statement, STATE 11814), (sym_continue_statement, STATE 11814),
    (sym_extension_definition, STATE 925), (sym_mlir_region, STATE 925),
    (sym_comptime_statement, STATE 925), (sym_if_statement, STATE 925),
    (sym_match_statement, STATE 925), (sym_for_statement, STATE 925),
    (sym_while_statement, STATE 925), (sym_try_statement, STATE 925),
    (sym_with_statement, STATE 925), (sym_function_definition, STATE 925),
    (sym_global_statement, STATE 11814), (sym_nonlocal_statement, STATE 11814),
    (sym_exec_statement, STATE 11814), (sym_type_alias_statement, STATE 11814),
    (sym_parameterized_alias_statement, STATE 11814), (sym_class_definition, STATE 925),
    (sym_trait_definition, STATE 925), (sym_decorated_definition, STATE 925),
    (sym_decorator, STATE 3670), (sym_block, STATE 5112), (sym_pattern, STATE 8086),
    (sym_tuple_pattern, STATE 8101), (sym_list_pattern, STATE 8101),
    (sym_list_splat_pattern, STATE 6819), (sym_as_pattern, STATE 7969),
    (sym_expression, STATE 9883), (sym_primary_expression, STATE 7326),
    (sym_comptime_expression, STATE 7017), (sym_transfer_expression, STATE 7017),
    (sym_not_operator, STATE 7969), (sym_boolean_operator, STATE 7969),
    (sym_binary_operator, STATE 7017), (sym_unary_operator, STATE 7017),
    (sym_comparison_operator, STATE 7969), (sym_lambda, STATE 7969),
    (sym_assignment, STATE 12425), (sym_augmented_assignment, STATE 12425),
    (sym_pattern_list, STATE 8578), (sym_yield, STATE 12425), (sym_attribute, STATE 6836),
    (sym_subscript, STATE 6838), (sym_call, STATE 6845), (sym_mlir_type, STATE 7017),
    (sym_list, STATE 7017), (sym_set, STATE 7017), (sym_tuple, STATE 7017),
    (sym_dictionary, STATE 7017), (sym_struct_literal, STATE 7017),
    (sym_list_comprehension, STATE 7017), (sym_dictionary_comprehension, STATE 7017),
    (sym_set_comprehension, STATE 7017), (sym_generator_expression, STATE 7017),
    (sym_parenthesized_expression, STATE 7017), (sym_conditional_expression, STATE 7969),
    (sym_concatenated_string, STATE 7017), (sym_string, STATE 6751), (sym_await, STATE 7017),
    (aux_sym_module_repeat1, STATE 925), (aux_sym_decorated_definition_repeat1, STATE 3670),
    (sym_identifier, ACTIONS 9), (anon_sym_import, ACTIONS 11), (anon_sym_from, ACTIONS 13),
    (anon_sym_LPAREN, ACTIONS 15), (anon_sym_STAR, ACTIONS 17), (anon_sym_print, ACTIONS 19),
    (anon_sym_comptime, ACTIONS 99), (anon_sym_assert, ACTIONS 23),
    (anon_sym___comptime_assert, ACTIONS 25), (anon_sym_return, ACTIONS 27),
    (anon_sym_del, ACTIONS 29), (anon_sym_raise, ACTIONS 31), (anon_sym_pass, ACTIONS 33),
    (anon_sym_break, ACTIONS 35), (anon_sym_continue, ACTIONS 37),
    (anon_sym___extension, ACTIONS 101), (anon_sym___mlir_region, ACTIONS 103),
    (anon_sym_if, ACTIONS 105), (anon_sym_match, ACTIONS 107), (anon_sym_async, ACTIONS 109),
    (anon_sym_for, ACTIONS 111), (anon_sym_while, ACTIONS 113), (anon_sym_try, ACTIONS 115),
    (anon_sym_with, ACTIONS 117), (anon_sym_def, ACTIONS 119), (anon_sym_fn, ACTIONS 119),
    (anon_sym_LBRACK, ACTIONS 59), (anon_sym_LBRACE, ACTIONS 61), (anon_sym_global, ACTIONS 63),
    (anon_sym_nonlocal, ACTIONS 65), (anon_sym_exec, ACTIONS 67), (anon_sym_type, ACTIONS 69),
    (anon_sym_class, ACTIONS 121), (anon_sym_struct, ACTIONS 121), (anon_sym_mut, ACTIONS 73),
    (anon_sym_out, ACTIONS 73), (anon_sym_trait, ACTIONS 123), (anon_sym_AT, ACTIONS 77),
    (anon_sym_DASH, ACTIONS 79), (anon_sym_PLUS, ACTIONS 79), (anon_sym_ref, ACTIONS 81),
    (anon_sym_var, ACTIONS 81), (anon_sym_not, ACTIONS 83), (anon_sym_TILDE, ACTIONS 79),
    (anon_sym_lambda, ACTIONS 85), (anon_sym_yield, ACTIONS 87), (sym_ellipsis, ACTIONS 89),
    (anon_sym___mlir_type, ACTIONS 91), (sym_integer, ACTIONS 93), (sym_float, ACTIONS 89),
    (anon_sym_await, ACTIONS 95), (sym_true, ACTIONS 93), (sym_false, ACTIONS 93),
    (sym_none, ACTIONS 93), (sym_comment, ACTIONS 3), (sym_line_continuation, ACTIONS 3),
    (sym__dedent, ACTIONS 129), (sym_string_start, ACTIONS 97)]"

definition parse_table_190 :: "(nat \<times> nat) list" where "parse_table_190 = [
    (sym__statement, STATE 925), (sym__simple_statements, STATE 925),
    (sym_import_statement, STATE 11814), (sym_future_import_statement, STATE 11814),
    (sym_import_from_statement, STATE 11814), (sym_print_statement, STATE 11814),
    (sym_assert_statement, STATE 11814), (sym_comptime_assert_statement, STATE 11814),
    (sym_expression_statement, STATE 11814), (sym_tuple_expression, STATE 12425),
    (sym_named_expression, STATE 7969), (sym__named_expression_lhs, STATE 12752),
    (sym_return_statement, STATE 11814), (sym_delete_statement, STATE 11814),
    (sym_raise_statement, STATE 11814), (sym_pass_statement, STATE 11814),
    (sym_break_statement, STATE 11814), (sym_continue_statement, STATE 11814),
    (sym_extension_definition, STATE 925), (sym_mlir_region, STATE 925),
    (sym_comptime_statement, STATE 925), (sym_if_statement, STATE 925),
    (sym_match_statement, STATE 925), (sym_for_statement, STATE 925),
    (sym_while_statement, STATE 925), (sym_try_statement, STATE 925),
    (sym_with_statement, STATE 925), (sym_function_definition, STATE 925),
    (sym_global_statement, STATE 11814), (sym_nonlocal_statement, STATE 11814),
    (sym_exec_statement, STATE 11814), (sym_type_alias_statement, STATE 11814),
    (sym_parameterized_alias_statement, STATE 11814), (sym_class_definition, STATE 925),
    (sym_trait_definition, STATE 925), (sym_decorated_definition, STATE 925),
    (sym_decorator, STATE 3670), (sym_block, STATE 5113), (sym_pattern, STATE 8086),
    (sym_tuple_pattern, STATE 8101), (sym_list_pattern, STATE 8101),
    (sym_list_splat_pattern, STATE 6819), (sym_as_pattern, STATE 7969),
    (sym_expression, STATE 9883), (sym_primary_expression, STATE 7326),
    (sym_comptime_expression, STATE 7017), (sym_transfer_expression, STATE 7017),
    (sym_not_operator, STATE 7969), (sym_boolean_operator, STATE 7969),
    (sym_binary_operator, STATE 7017), (sym_unary_operator, STATE 7017),
    (sym_comparison_operator, STATE 7969), (sym_lambda, STATE 7969),
    (sym_assignment, STATE 12425), (sym_augmented_assignment, STATE 12425),
    (sym_pattern_list, STATE 8578), (sym_yield, STATE 12425), (sym_attribute, STATE 6836),
    (sym_subscript, STATE 6838), (sym_call, STATE 6845), (sym_mlir_type, STATE 7017),
    (sym_list, STATE 7017), (sym_set, STATE 7017), (sym_tuple, STATE 7017),
    (sym_dictionary, STATE 7017), (sym_struct_literal, STATE 7017),
    (sym_list_comprehension, STATE 7017), (sym_dictionary_comprehension, STATE 7017),
    (sym_set_comprehension, STATE 7017), (sym_generator_expression, STATE 7017),
    (sym_parenthesized_expression, STATE 7017), (sym_conditional_expression, STATE 7969),
    (sym_concatenated_string, STATE 7017), (sym_string, STATE 6751), (sym_await, STATE 7017),
    (aux_sym_module_repeat1, STATE 925), (aux_sym_decorated_definition_repeat1, STATE 3670),
    (sym_identifier, ACTIONS 9), (anon_sym_import, ACTIONS 11), (anon_sym_from, ACTIONS 13),
    (anon_sym_LPAREN, ACTIONS 15), (anon_sym_STAR, ACTIONS 17), (anon_sym_print, ACTIONS 19),
    (anon_sym_comptime, ACTIONS 99), (anon_sym_assert, ACTIONS 23),
    (anon_sym___comptime_assert, ACTIONS 25), (anon_sym_return, ACTIONS 27),
    (anon_sym_del, ACTIONS 29), (anon_sym_raise, ACTIONS 31), (anon_sym_pass, ACTIONS 33),
    (anon_sym_break, ACTIONS 35), (anon_sym_continue, ACTIONS 37),
    (anon_sym___extension, ACTIONS 101), (anon_sym___mlir_region, ACTIONS 103),
    (anon_sym_if, ACTIONS 105), (anon_sym_match, ACTIONS 107), (anon_sym_async, ACTIONS 109),
    (anon_sym_for, ACTIONS 111), (anon_sym_while, ACTIONS 113), (anon_sym_try, ACTIONS 115),
    (anon_sym_with, ACTIONS 117), (anon_sym_def, ACTIONS 119), (anon_sym_fn, ACTIONS 119),
    (anon_sym_LBRACK, ACTIONS 59), (anon_sym_LBRACE, ACTIONS 61), (anon_sym_global, ACTIONS 63),
    (anon_sym_nonlocal, ACTIONS 65), (anon_sym_exec, ACTIONS 67), (anon_sym_type, ACTIONS 69),
    (anon_sym_class, ACTIONS 121), (anon_sym_struct, ACTIONS 121), (anon_sym_mut, ACTIONS 73),
    (anon_sym_out, ACTIONS 73), (anon_sym_trait, ACTIONS 123), (anon_sym_AT, ACTIONS 77),
    (anon_sym_DASH, ACTIONS 79), (anon_sym_PLUS, ACTIONS 79), (anon_sym_ref, ACTIONS 81),
    (anon_sym_var, ACTIONS 81), (anon_sym_not, ACTIONS 83), (anon_sym_TILDE, ACTIONS 79),
    (anon_sym_lambda, ACTIONS 85), (anon_sym_yield, ACTIONS 87), (sym_ellipsis, ACTIONS 89),
    (anon_sym___mlir_type, ACTIONS 91), (sym_integer, ACTIONS 93), (sym_float, ACTIONS 89),
    (anon_sym_await, ACTIONS 95), (sym_true, ACTIONS 93), (sym_false, ACTIONS 93),
    (sym_none, ACTIONS 93), (sym_comment, ACTIONS 3), (sym_line_continuation, ACTIONS 3),
    (sym__dedent, ACTIONS 129), (sym_string_start, ACTIONS 97)]"

definition parse_table_191 :: "(nat \<times> nat) list" where "parse_table_191 = [
    (sym__statement, STATE 925), (sym__simple_statements, STATE 925),
    (sym_import_statement, STATE 11814), (sym_future_import_statement, STATE 11814),
    (sym_import_from_statement, STATE 11814), (sym_print_statement, STATE 11814),
    (sym_assert_statement, STATE 11814), (sym_comptime_assert_statement, STATE 11814),
    (sym_expression_statement, STATE 11814), (sym_tuple_expression, STATE 12425),
    (sym_named_expression, STATE 7969), (sym__named_expression_lhs, STATE 12752),
    (sym_return_statement, STATE 11814), (sym_delete_statement, STATE 11814),
    (sym_raise_statement, STATE 11814), (sym_pass_statement, STATE 11814),
    (sym_break_statement, STATE 11814), (sym_continue_statement, STATE 11814),
    (sym_extension_definition, STATE 925), (sym_mlir_region, STATE 925),
    (sym_comptime_statement, STATE 925), (sym_if_statement, STATE 925),
    (sym_match_statement, STATE 925), (sym_for_statement, STATE 925),
    (sym_while_statement, STATE 925), (sym_try_statement, STATE 925),
    (sym_with_statement, STATE 925), (sym_function_definition, STATE 925),
    (sym_global_statement, STATE 11814), (sym_nonlocal_statement, STATE 11814),
    (sym_exec_statement, STATE 11814), (sym_type_alias_statement, STATE 11814),
    (sym_parameterized_alias_statement, STATE 11814), (sym_class_definition, STATE 925),
    (sym_trait_definition, STATE 925), (sym_decorated_definition, STATE 925),
    (sym_decorator, STATE 3670), (sym_block, STATE 5115), (sym_pattern, STATE 8086),
    (sym_tuple_pattern, STATE 8101), (sym_list_pattern, STATE 8101),
    (sym_list_splat_pattern, STATE 6819), (sym_as_pattern, STATE 7969),
    (sym_expression, STATE 9883), (sym_primary_expression, STATE 7326),
    (sym_comptime_expression, STATE 7017), (sym_transfer_expression, STATE 7017),
    (sym_not_operator, STATE 7969), (sym_boolean_operator, STATE 7969),
    (sym_binary_operator, STATE 7017), (sym_unary_operator, STATE 7017),
    (sym_comparison_operator, STATE 7969), (sym_lambda, STATE 7969),
    (sym_assignment, STATE 12425), (sym_augmented_assignment, STATE 12425),
    (sym_pattern_list, STATE 8578), (sym_yield, STATE 12425), (sym_attribute, STATE 6836),
    (sym_subscript, STATE 6838), (sym_call, STATE 6845), (sym_mlir_type, STATE 7017),
    (sym_list, STATE 7017), (sym_set, STATE 7017), (sym_tuple, STATE 7017),
    (sym_dictionary, STATE 7017), (sym_struct_literal, STATE 7017),
    (sym_list_comprehension, STATE 7017), (sym_dictionary_comprehension, STATE 7017),
    (sym_set_comprehension, STATE 7017), (sym_generator_expression, STATE 7017),
    (sym_parenthesized_expression, STATE 7017), (sym_conditional_expression, STATE 7969),
    (sym_concatenated_string, STATE 7017), (sym_string, STATE 6751), (sym_await, STATE 7017),
    (aux_sym_module_repeat1, STATE 925), (aux_sym_decorated_definition_repeat1, STATE 3670),
    (sym_identifier, ACTIONS 9), (anon_sym_import, ACTIONS 11), (anon_sym_from, ACTIONS 13),
    (anon_sym_LPAREN, ACTIONS 15), (anon_sym_STAR, ACTIONS 17), (anon_sym_print, ACTIONS 19),
    (anon_sym_comptime, ACTIONS 99), (anon_sym_assert, ACTIONS 23),
    (anon_sym___comptime_assert, ACTIONS 25), (anon_sym_return, ACTIONS 27),
    (anon_sym_del, ACTIONS 29), (anon_sym_raise, ACTIONS 31), (anon_sym_pass, ACTIONS 33),
    (anon_sym_break, ACTIONS 35), (anon_sym_continue, ACTIONS 37),
    (anon_sym___extension, ACTIONS 101), (anon_sym___mlir_region, ACTIONS 103),
    (anon_sym_if, ACTIONS 105), (anon_sym_match, ACTIONS 107), (anon_sym_async, ACTIONS 109),
    (anon_sym_for, ACTIONS 111), (anon_sym_while, ACTIONS 113), (anon_sym_try, ACTIONS 115),
    (anon_sym_with, ACTIONS 117), (anon_sym_def, ACTIONS 119), (anon_sym_fn, ACTIONS 119),
    (anon_sym_LBRACK, ACTIONS 59), (anon_sym_LBRACE, ACTIONS 61), (anon_sym_global, ACTIONS 63),
    (anon_sym_nonlocal, ACTIONS 65), (anon_sym_exec, ACTIONS 67), (anon_sym_type, ACTIONS 69),
    (anon_sym_class, ACTIONS 121), (anon_sym_struct, ACTIONS 121), (anon_sym_mut, ACTIONS 73),
    (anon_sym_out, ACTIONS 73), (anon_sym_trait, ACTIONS 123), (anon_sym_AT, ACTIONS 77),
    (anon_sym_DASH, ACTIONS 79), (anon_sym_PLUS, ACTIONS 79), (anon_sym_ref, ACTIONS 81),
    (anon_sym_var, ACTIONS 81), (anon_sym_not, ACTIONS 83), (anon_sym_TILDE, ACTIONS 79),
    (anon_sym_lambda, ACTIONS 85), (anon_sym_yield, ACTIONS 87), (sym_ellipsis, ACTIONS 89),
    (anon_sym___mlir_type, ACTIONS 91), (sym_integer, ACTIONS 93), (sym_float, ACTIONS 89),
    (anon_sym_await, ACTIONS 95), (sym_true, ACTIONS 93), (sym_false, ACTIONS 93),
    (sym_none, ACTIONS 93), (sym_comment, ACTIONS 3), (sym_line_continuation, ACTIONS 3),
    (sym__dedent, ACTIONS 129), (sym_string_start, ACTIONS 97)]"

definition parse_table_192 :: "(nat \<times> nat) list" where "parse_table_192 = [
    (sym__statement, STATE 925), (sym__simple_statements, STATE 925),
    (sym_import_statement, STATE 11814), (sym_future_import_statement, STATE 11814),
    (sym_import_from_statement, STATE 11814), (sym_print_statement, STATE 11814),
    (sym_assert_statement, STATE 11814), (sym_comptime_assert_statement, STATE 11814),
    (sym_expression_statement, STATE 11814), (sym_tuple_expression, STATE 12425),
    (sym_named_expression, STATE 7969), (sym__named_expression_lhs, STATE 12752),
    (sym_return_statement, STATE 11814), (sym_delete_statement, STATE 11814),
    (sym_raise_statement, STATE 11814), (sym_pass_statement, STATE 11814),
    (sym_break_statement, STATE 11814), (sym_continue_statement, STATE 11814),
    (sym_extension_definition, STATE 925), (sym_mlir_region, STATE 925),
    (sym_comptime_statement, STATE 925), (sym_if_statement, STATE 925),
    (sym_match_statement, STATE 925), (sym_for_statement, STATE 925),
    (sym_while_statement, STATE 925), (sym_try_statement, STATE 925),
    (sym_with_statement, STATE 925), (sym_function_definition, STATE 925),
    (sym_global_statement, STATE 11814), (sym_nonlocal_statement, STATE 11814),
    (sym_exec_statement, STATE 11814), (sym_type_alias_statement, STATE 11814),
    (sym_parameterized_alias_statement, STATE 11814), (sym_class_definition, STATE 925),
    (sym_trait_definition, STATE 925), (sym_decorated_definition, STATE 925),
    (sym_decorator, STATE 3670), (sym_block, STATE 5119), (sym_pattern, STATE 8086),
    (sym_tuple_pattern, STATE 8101), (sym_list_pattern, STATE 8101),
    (sym_list_splat_pattern, STATE 6819), (sym_as_pattern, STATE 7969),
    (sym_expression, STATE 9883), (sym_primary_expression, STATE 7326),
    (sym_comptime_expression, STATE 7017), (sym_transfer_expression, STATE 7017),
    (sym_not_operator, STATE 7969), (sym_boolean_operator, STATE 7969),
    (sym_binary_operator, STATE 7017), (sym_unary_operator, STATE 7017),
    (sym_comparison_operator, STATE 7969), (sym_lambda, STATE 7969),
    (sym_assignment, STATE 12425), (sym_augmented_assignment, STATE 12425),
    (sym_pattern_list, STATE 8578), (sym_yield, STATE 12425), (sym_attribute, STATE 6836),
    (sym_subscript, STATE 6838), (sym_call, STATE 6845), (sym_mlir_type, STATE 7017),
    (sym_list, STATE 7017), (sym_set, STATE 7017), (sym_tuple, STATE 7017),
    (sym_dictionary, STATE 7017), (sym_struct_literal, STATE 7017),
    (sym_list_comprehension, STATE 7017), (sym_dictionary_comprehension, STATE 7017),
    (sym_set_comprehension, STATE 7017), (sym_generator_expression, STATE 7017),
    (sym_parenthesized_expression, STATE 7017), (sym_conditional_expression, STATE 7969),
    (sym_concatenated_string, STATE 7017), (sym_string, STATE 6751), (sym_await, STATE 7017),
    (aux_sym_module_repeat1, STATE 925), (aux_sym_decorated_definition_repeat1, STATE 3670),
    (sym_identifier, ACTIONS 9), (anon_sym_import, ACTIONS 11), (anon_sym_from, ACTIONS 13),
    (anon_sym_LPAREN, ACTIONS 15), (anon_sym_STAR, ACTIONS 17), (anon_sym_print, ACTIONS 19),
    (anon_sym_comptime, ACTIONS 99), (anon_sym_assert, ACTIONS 23),
    (anon_sym___comptime_assert, ACTIONS 25), (anon_sym_return, ACTIONS 27),
    (anon_sym_del, ACTIONS 29), (anon_sym_raise, ACTIONS 31), (anon_sym_pass, ACTIONS 33),
    (anon_sym_break, ACTIONS 35), (anon_sym_continue, ACTIONS 37),
    (anon_sym___extension, ACTIONS 101), (anon_sym___mlir_region, ACTIONS 103),
    (anon_sym_if, ACTIONS 105), (anon_sym_match, ACTIONS 107), (anon_sym_async, ACTIONS 109),
    (anon_sym_for, ACTIONS 111), (anon_sym_while, ACTIONS 113), (anon_sym_try, ACTIONS 115),
    (anon_sym_with, ACTIONS 117), (anon_sym_def, ACTIONS 119), (anon_sym_fn, ACTIONS 119),
    (anon_sym_LBRACK, ACTIONS 59), (anon_sym_LBRACE, ACTIONS 61), (anon_sym_global, ACTIONS 63),
    (anon_sym_nonlocal, ACTIONS 65), (anon_sym_exec, ACTIONS 67), (anon_sym_type, ACTIONS 69),
    (anon_sym_class, ACTIONS 121), (anon_sym_struct, ACTIONS 121), (anon_sym_mut, ACTIONS 73),
    (anon_sym_out, ACTIONS 73), (anon_sym_trait, ACTIONS 123), (anon_sym_AT, ACTIONS 77),
    (anon_sym_DASH, ACTIONS 79), (anon_sym_PLUS, ACTIONS 79), (anon_sym_ref, ACTIONS 81),
    (anon_sym_var, ACTIONS 81), (anon_sym_not, ACTIONS 83), (anon_sym_TILDE, ACTIONS 79),
    (anon_sym_lambda, ACTIONS 85), (anon_sym_yield, ACTIONS 87), (sym_ellipsis, ACTIONS 89),
    (anon_sym___mlir_type, ACTIONS 91), (sym_integer, ACTIONS 93), (sym_float, ACTIONS 89),
    (anon_sym_await, ACTIONS 95), (sym_true, ACTIONS 93), (sym_false, ACTIONS 93),
    (sym_none, ACTIONS 93), (sym_comment, ACTIONS 3), (sym_line_continuation, ACTIONS 3),
    (sym__dedent, ACTIONS 129), (sym_string_start, ACTIONS 97)]"

definition parse_table_193 :: "(nat \<times> nat) list" where "parse_table_193 = [
    (sym__statement, STATE 925), (sym__simple_statements, STATE 925),
    (sym_import_statement, STATE 11814), (sym_future_import_statement, STATE 11814),
    (sym_import_from_statement, STATE 11814), (sym_print_statement, STATE 11814),
    (sym_assert_statement, STATE 11814), (sym_comptime_assert_statement, STATE 11814),
    (sym_expression_statement, STATE 11814), (sym_tuple_expression, STATE 12425),
    (sym_named_expression, STATE 7969), (sym__named_expression_lhs, STATE 12752),
    (sym_return_statement, STATE 11814), (sym_delete_statement, STATE 11814),
    (sym_raise_statement, STATE 11814), (sym_pass_statement, STATE 11814),
    (sym_break_statement, STATE 11814), (sym_continue_statement, STATE 11814),
    (sym_extension_definition, STATE 925), (sym_mlir_region, STATE 925),
    (sym_comptime_statement, STATE 925), (sym_if_statement, STATE 925),
    (sym_match_statement, STATE 925), (sym_for_statement, STATE 925),
    (sym_while_statement, STATE 925), (sym_try_statement, STATE 925),
    (sym_with_statement, STATE 925), (sym_function_definition, STATE 925),
    (sym_global_statement, STATE 11814), (sym_nonlocal_statement, STATE 11814),
    (sym_exec_statement, STATE 11814), (sym_type_alias_statement, STATE 11814),
    (sym_parameterized_alias_statement, STATE 11814), (sym_class_definition, STATE 925),
    (sym_trait_definition, STATE 925), (sym_decorated_definition, STATE 925),
    (sym_decorator, STATE 3670), (sym_block, STATE 5122), (sym_pattern, STATE 8086),
    (sym_tuple_pattern, STATE 8101), (sym_list_pattern, STATE 8101),
    (sym_list_splat_pattern, STATE 6819), (sym_as_pattern, STATE 7969),
    (sym_expression, STATE 9883), (sym_primary_expression, STATE 7326),
    (sym_comptime_expression, STATE 7017), (sym_transfer_expression, STATE 7017),
    (sym_not_operator, STATE 7969), (sym_boolean_operator, STATE 7969),
    (sym_binary_operator, STATE 7017), (sym_unary_operator, STATE 7017),
    (sym_comparison_operator, STATE 7969), (sym_lambda, STATE 7969),
    (sym_assignment, STATE 12425), (sym_augmented_assignment, STATE 12425),
    (sym_pattern_list, STATE 8578), (sym_yield, STATE 12425), (sym_attribute, STATE 6836),
    (sym_subscript, STATE 6838), (sym_call, STATE 6845), (sym_mlir_type, STATE 7017),
    (sym_list, STATE 7017), (sym_set, STATE 7017), (sym_tuple, STATE 7017),
    (sym_dictionary, STATE 7017), (sym_struct_literal, STATE 7017),
    (sym_list_comprehension, STATE 7017), (sym_dictionary_comprehension, STATE 7017),
    (sym_set_comprehension, STATE 7017), (sym_generator_expression, STATE 7017),
    (sym_parenthesized_expression, STATE 7017), (sym_conditional_expression, STATE 7969),
    (sym_concatenated_string, STATE 7017), (sym_string, STATE 6751), (sym_await, STATE 7017),
    (aux_sym_module_repeat1, STATE 925), (aux_sym_decorated_definition_repeat1, STATE 3670),
    (sym_identifier, ACTIONS 9), (anon_sym_import, ACTIONS 11), (anon_sym_from, ACTIONS 13),
    (anon_sym_LPAREN, ACTIONS 15), (anon_sym_STAR, ACTIONS 17), (anon_sym_print, ACTIONS 19),
    (anon_sym_comptime, ACTIONS 99), (anon_sym_assert, ACTIONS 23),
    (anon_sym___comptime_assert, ACTIONS 25), (anon_sym_return, ACTIONS 27),
    (anon_sym_del, ACTIONS 29), (anon_sym_raise, ACTIONS 31), (anon_sym_pass, ACTIONS 33),
    (anon_sym_break, ACTIONS 35), (anon_sym_continue, ACTIONS 37),
    (anon_sym___extension, ACTIONS 101), (anon_sym___mlir_region, ACTIONS 103),
    (anon_sym_if, ACTIONS 105), (anon_sym_match, ACTIONS 107), (anon_sym_async, ACTIONS 109),
    (anon_sym_for, ACTIONS 111), (anon_sym_while, ACTIONS 113), (anon_sym_try, ACTIONS 115),
    (anon_sym_with, ACTIONS 117), (anon_sym_def, ACTIONS 119), (anon_sym_fn, ACTIONS 119),
    (anon_sym_LBRACK, ACTIONS 59), (anon_sym_LBRACE, ACTIONS 61), (anon_sym_global, ACTIONS 63),
    (anon_sym_nonlocal, ACTIONS 65), (anon_sym_exec, ACTIONS 67), (anon_sym_type, ACTIONS 69),
    (anon_sym_class, ACTIONS 121), (anon_sym_struct, ACTIONS 121), (anon_sym_mut, ACTIONS 73),
    (anon_sym_out, ACTIONS 73), (anon_sym_trait, ACTIONS 123), (anon_sym_AT, ACTIONS 77),
    (anon_sym_DASH, ACTIONS 79), (anon_sym_PLUS, ACTIONS 79), (anon_sym_ref, ACTIONS 81),
    (anon_sym_var, ACTIONS 81), (anon_sym_not, ACTIONS 83), (anon_sym_TILDE, ACTIONS 79),
    (anon_sym_lambda, ACTIONS 85), (anon_sym_yield, ACTIONS 87), (sym_ellipsis, ACTIONS 89),
    (anon_sym___mlir_type, ACTIONS 91), (sym_integer, ACTIONS 93), (sym_float, ACTIONS 89),
    (anon_sym_await, ACTIONS 95), (sym_true, ACTIONS 93), (sym_false, ACTIONS 93),
    (sym_none, ACTIONS 93), (sym_comment, ACTIONS 3), (sym_line_continuation, ACTIONS 3),
    (sym__dedent, ACTIONS 129), (sym_string_start, ACTIONS 97)]"

definition parse_table_194 :: "(nat \<times> nat) list" where "parse_table_194 = [
    (sym__statement, STATE 925), (sym__simple_statements, STATE 925),
    (sym_import_statement, STATE 11814), (sym_future_import_statement, STATE 11814),
    (sym_import_from_statement, STATE 11814), (sym_print_statement, STATE 11814),
    (sym_assert_statement, STATE 11814), (sym_comptime_assert_statement, STATE 11814),
    (sym_expression_statement, STATE 11814), (sym_tuple_expression, STATE 12425),
    (sym_named_expression, STATE 7969), (sym__named_expression_lhs, STATE 12752),
    (sym_return_statement, STATE 11814), (sym_delete_statement, STATE 11814),
    (sym_raise_statement, STATE 11814), (sym_pass_statement, STATE 11814),
    (sym_break_statement, STATE 11814), (sym_continue_statement, STATE 11814),
    (sym_extension_definition, STATE 925), (sym_mlir_region, STATE 925),
    (sym_comptime_statement, STATE 925), (sym_if_statement, STATE 925),
    (sym_match_statement, STATE 925), (sym_for_statement, STATE 925),
    (sym_while_statement, STATE 925), (sym_try_statement, STATE 925),
    (sym_with_statement, STATE 925), (sym_function_definition, STATE 925),
    (sym_global_statement, STATE 11814), (sym_nonlocal_statement, STATE 11814),
    (sym_exec_statement, STATE 11814), (sym_type_alias_statement, STATE 11814),
    (sym_parameterized_alias_statement, STATE 11814), (sym_class_definition, STATE 925),
    (sym_trait_definition, STATE 925), (sym_decorated_definition, STATE 925),
    (sym_decorator, STATE 3670), (sym_block, STATE 5126), (sym_pattern, STATE 8086),
    (sym_tuple_pattern, STATE 8101), (sym_list_pattern, STATE 8101),
    (sym_list_splat_pattern, STATE 6819), (sym_as_pattern, STATE 7969),
    (sym_expression, STATE 9883), (sym_primary_expression, STATE 7326),
    (sym_comptime_expression, STATE 7017), (sym_transfer_expression, STATE 7017),
    (sym_not_operator, STATE 7969), (sym_boolean_operator, STATE 7969),
    (sym_binary_operator, STATE 7017), (sym_unary_operator, STATE 7017),
    (sym_comparison_operator, STATE 7969), (sym_lambda, STATE 7969),
    (sym_assignment, STATE 12425), (sym_augmented_assignment, STATE 12425),
    (sym_pattern_list, STATE 8578), (sym_yield, STATE 12425), (sym_attribute, STATE 6836),
    (sym_subscript, STATE 6838), (sym_call, STATE 6845), (sym_mlir_type, STATE 7017),
    (sym_list, STATE 7017), (sym_set, STATE 7017), (sym_tuple, STATE 7017),
    (sym_dictionary, STATE 7017), (sym_struct_literal, STATE 7017),
    (sym_list_comprehension, STATE 7017), (sym_dictionary_comprehension, STATE 7017),
    (sym_set_comprehension, STATE 7017), (sym_generator_expression, STATE 7017),
    (sym_parenthesized_expression, STATE 7017), (sym_conditional_expression, STATE 7969),
    (sym_concatenated_string, STATE 7017), (sym_string, STATE 6751), (sym_await, STATE 7017),
    (aux_sym_module_repeat1, STATE 925), (aux_sym_decorated_definition_repeat1, STATE 3670),
    (sym_identifier, ACTIONS 9), (anon_sym_import, ACTIONS 11), (anon_sym_from, ACTIONS 13),
    (anon_sym_LPAREN, ACTIONS 15), (anon_sym_STAR, ACTIONS 17), (anon_sym_print, ACTIONS 19),
    (anon_sym_comptime, ACTIONS 99), (anon_sym_assert, ACTIONS 23),
    (anon_sym___comptime_assert, ACTIONS 25), (anon_sym_return, ACTIONS 27),
    (anon_sym_del, ACTIONS 29), (anon_sym_raise, ACTIONS 31), (anon_sym_pass, ACTIONS 33),
    (anon_sym_break, ACTIONS 35), (anon_sym_continue, ACTIONS 37),
    (anon_sym___extension, ACTIONS 101), (anon_sym___mlir_region, ACTIONS 103),
    (anon_sym_if, ACTIONS 105), (anon_sym_match, ACTIONS 107), (anon_sym_async, ACTIONS 109),
    (anon_sym_for, ACTIONS 111), (anon_sym_while, ACTIONS 113), (anon_sym_try, ACTIONS 115),
    (anon_sym_with, ACTIONS 117), (anon_sym_def, ACTIONS 119), (anon_sym_fn, ACTIONS 119),
    (anon_sym_LBRACK, ACTIONS 59), (anon_sym_LBRACE, ACTIONS 61), (anon_sym_global, ACTIONS 63),
    (anon_sym_nonlocal, ACTIONS 65), (anon_sym_exec, ACTIONS 67), (anon_sym_type, ACTIONS 69),
    (anon_sym_class, ACTIONS 121), (anon_sym_struct, ACTIONS 121), (anon_sym_mut, ACTIONS 73),
    (anon_sym_out, ACTIONS 73), (anon_sym_trait, ACTIONS 123), (anon_sym_AT, ACTIONS 77),
    (anon_sym_DASH, ACTIONS 79), (anon_sym_PLUS, ACTIONS 79), (anon_sym_ref, ACTIONS 81),
    (anon_sym_var, ACTIONS 81), (anon_sym_not, ACTIONS 83), (anon_sym_TILDE, ACTIONS 79),
    (anon_sym_lambda, ACTIONS 85), (anon_sym_yield, ACTIONS 87), (sym_ellipsis, ACTIONS 89),
    (anon_sym___mlir_type, ACTIONS 91), (sym_integer, ACTIONS 93), (sym_float, ACTIONS 89),
    (anon_sym_await, ACTIONS 95), (sym_true, ACTIONS 93), (sym_false, ACTIONS 93),
    (sym_none, ACTIONS 93), (sym_comment, ACTIONS 3), (sym_line_continuation, ACTIONS 3),
    (sym__dedent, ACTIONS 129), (sym_string_start, ACTIONS 97)]"

definition parse_table_195 :: "(nat \<times> nat) list" where "parse_table_195 = [
    (sym__statement, STATE 925), (sym__simple_statements, STATE 925),
    (sym_import_statement, STATE 11814), (sym_future_import_statement, STATE 11814),
    (sym_import_from_statement, STATE 11814), (sym_print_statement, STATE 11814),
    (sym_assert_statement, STATE 11814), (sym_comptime_assert_statement, STATE 11814),
    (sym_expression_statement, STATE 11814), (sym_tuple_expression, STATE 12425),
    (sym_named_expression, STATE 7969), (sym__named_expression_lhs, STATE 12752),
    (sym_return_statement, STATE 11814), (sym_delete_statement, STATE 11814),
    (sym_raise_statement, STATE 11814), (sym_pass_statement, STATE 11814),
    (sym_break_statement, STATE 11814), (sym_continue_statement, STATE 11814),
    (sym_extension_definition, STATE 925), (sym_mlir_region, STATE 925),
    (sym_comptime_statement, STATE 925), (sym_if_statement, STATE 925),
    (sym_match_statement, STATE 925), (sym_for_statement, STATE 925),
    (sym_while_statement, STATE 925), (sym_try_statement, STATE 925),
    (sym_with_statement, STATE 925), (sym_function_definition, STATE 925),
    (sym_global_statement, STATE 11814), (sym_nonlocal_statement, STATE 11814),
    (sym_exec_statement, STATE 11814), (sym_type_alias_statement, STATE 11814),
    (sym_parameterized_alias_statement, STATE 11814), (sym_class_definition, STATE 925),
    (sym_trait_definition, STATE 925), (sym_decorated_definition, STATE 925),
    (sym_decorator, STATE 3670), (sym_block, STATE 5129), (sym_pattern, STATE 8086),
    (sym_tuple_pattern, STATE 8101), (sym_list_pattern, STATE 8101),
    (sym_list_splat_pattern, STATE 6819), (sym_as_pattern, STATE 7969),
    (sym_expression, STATE 9883), (sym_primary_expression, STATE 7326),
    (sym_comptime_expression, STATE 7017), (sym_transfer_expression, STATE 7017),
    (sym_not_operator, STATE 7969), (sym_boolean_operator, STATE 7969),
    (sym_binary_operator, STATE 7017), (sym_unary_operator, STATE 7017),
    (sym_comparison_operator, STATE 7969), (sym_lambda, STATE 7969),
    (sym_assignment, STATE 12425), (sym_augmented_assignment, STATE 12425),
    (sym_pattern_list, STATE 8578), (sym_yield, STATE 12425), (sym_attribute, STATE 6836),
    (sym_subscript, STATE 6838), (sym_call, STATE 6845), (sym_mlir_type, STATE 7017),
    (sym_list, STATE 7017), (sym_set, STATE 7017), (sym_tuple, STATE 7017),
    (sym_dictionary, STATE 7017), (sym_struct_literal, STATE 7017),
    (sym_list_comprehension, STATE 7017), (sym_dictionary_comprehension, STATE 7017),
    (sym_set_comprehension, STATE 7017), (sym_generator_expression, STATE 7017),
    (sym_parenthesized_expression, STATE 7017), (sym_conditional_expression, STATE 7969),
    (sym_concatenated_string, STATE 7017), (sym_string, STATE 6751), (sym_await, STATE 7017),
    (aux_sym_module_repeat1, STATE 925), (aux_sym_decorated_definition_repeat1, STATE 3670),
    (sym_identifier, ACTIONS 9), (anon_sym_import, ACTIONS 11), (anon_sym_from, ACTIONS 13),
    (anon_sym_LPAREN, ACTIONS 15), (anon_sym_STAR, ACTIONS 17), (anon_sym_print, ACTIONS 19),
    (anon_sym_comptime, ACTIONS 99), (anon_sym_assert, ACTIONS 23),
    (anon_sym___comptime_assert, ACTIONS 25), (anon_sym_return, ACTIONS 27),
    (anon_sym_del, ACTIONS 29), (anon_sym_raise, ACTIONS 31), (anon_sym_pass, ACTIONS 33),
    (anon_sym_break, ACTIONS 35), (anon_sym_continue, ACTIONS 37),
    (anon_sym___extension, ACTIONS 101), (anon_sym___mlir_region, ACTIONS 103),
    (anon_sym_if, ACTIONS 105), (anon_sym_match, ACTIONS 107), (anon_sym_async, ACTIONS 109),
    (anon_sym_for, ACTIONS 111), (anon_sym_while, ACTIONS 113), (anon_sym_try, ACTIONS 115),
    (anon_sym_with, ACTIONS 117), (anon_sym_def, ACTIONS 119), (anon_sym_fn, ACTIONS 119),
    (anon_sym_LBRACK, ACTIONS 59), (anon_sym_LBRACE, ACTIONS 61), (anon_sym_global, ACTIONS 63),
    (anon_sym_nonlocal, ACTIONS 65), (anon_sym_exec, ACTIONS 67), (anon_sym_type, ACTIONS 69),
    (anon_sym_class, ACTIONS 121), (anon_sym_struct, ACTIONS 121), (anon_sym_mut, ACTIONS 73),
    (anon_sym_out, ACTIONS 73), (anon_sym_trait, ACTIONS 123), (anon_sym_AT, ACTIONS 77),
    (anon_sym_DASH, ACTIONS 79), (anon_sym_PLUS, ACTIONS 79), (anon_sym_ref, ACTIONS 81),
    (anon_sym_var, ACTIONS 81), (anon_sym_not, ACTIONS 83), (anon_sym_TILDE, ACTIONS 79),
    (anon_sym_lambda, ACTIONS 85), (anon_sym_yield, ACTIONS 87), (sym_ellipsis, ACTIONS 89),
    (anon_sym___mlir_type, ACTIONS 91), (sym_integer, ACTIONS 93), (sym_float, ACTIONS 89),
    (anon_sym_await, ACTIONS 95), (sym_true, ACTIONS 93), (sym_false, ACTIONS 93),
    (sym_none, ACTIONS 93), (sym_comment, ACTIONS 3), (sym_line_continuation, ACTIONS 3),
    (sym__dedent, ACTIONS 129), (sym_string_start, ACTIONS 97)]"

definition parse_table_196 :: "(nat \<times> nat) list" where "parse_table_196 = [
    (sym__statement, STATE 925), (sym__simple_statements, STATE 925),
    (sym_import_statement, STATE 11814), (sym_future_import_statement, STATE 11814),
    (sym_import_from_statement, STATE 11814), (sym_print_statement, STATE 11814),
    (sym_assert_statement, STATE 11814), (sym_comptime_assert_statement, STATE 11814),
    (sym_expression_statement, STATE 11814), (sym_tuple_expression, STATE 12425),
    (sym_named_expression, STATE 7969), (sym__named_expression_lhs, STATE 12752),
    (sym_return_statement, STATE 11814), (sym_delete_statement, STATE 11814),
    (sym_raise_statement, STATE 11814), (sym_pass_statement, STATE 11814),
    (sym_break_statement, STATE 11814), (sym_continue_statement, STATE 11814),
    (sym_extension_definition, STATE 925), (sym_mlir_region, STATE 925),
    (sym_comptime_statement, STATE 925), (sym_if_statement, STATE 925),
    (sym_match_statement, STATE 925), (sym_for_statement, STATE 925),
    (sym_while_statement, STATE 925), (sym_try_statement, STATE 925),
    (sym_with_statement, STATE 925), (sym_function_definition, STATE 925),
    (sym_global_statement, STATE 11814), (sym_nonlocal_statement, STATE 11814),
    (sym_exec_statement, STATE 11814), (sym_type_alias_statement, STATE 11814),
    (sym_parameterized_alias_statement, STATE 11814), (sym_class_definition, STATE 925),
    (sym_trait_definition, STATE 925), (sym_decorated_definition, STATE 925),
    (sym_decorator, STATE 3670), (sym_block, STATE 5135), (sym_pattern, STATE 8086),
    (sym_tuple_pattern, STATE 8101), (sym_list_pattern, STATE 8101),
    (sym_list_splat_pattern, STATE 6819), (sym_as_pattern, STATE 7969),
    (sym_expression, STATE 9883), (sym_primary_expression, STATE 7326),
    (sym_comptime_expression, STATE 7017), (sym_transfer_expression, STATE 7017),
    (sym_not_operator, STATE 7969), (sym_boolean_operator, STATE 7969),
    (sym_binary_operator, STATE 7017), (sym_unary_operator, STATE 7017),
    (sym_comparison_operator, STATE 7969), (sym_lambda, STATE 7969),
    (sym_assignment, STATE 12425), (sym_augmented_assignment, STATE 12425),
    (sym_pattern_list, STATE 8578), (sym_yield, STATE 12425), (sym_attribute, STATE 6836),
    (sym_subscript, STATE 6838), (sym_call, STATE 6845), (sym_mlir_type, STATE 7017),
    (sym_list, STATE 7017), (sym_set, STATE 7017), (sym_tuple, STATE 7017),
    (sym_dictionary, STATE 7017), (sym_struct_literal, STATE 7017),
    (sym_list_comprehension, STATE 7017), (sym_dictionary_comprehension, STATE 7017),
    (sym_set_comprehension, STATE 7017), (sym_generator_expression, STATE 7017),
    (sym_parenthesized_expression, STATE 7017), (sym_conditional_expression, STATE 7969),
    (sym_concatenated_string, STATE 7017), (sym_string, STATE 6751), (sym_await, STATE 7017),
    (aux_sym_module_repeat1, STATE 925), (aux_sym_decorated_definition_repeat1, STATE 3670),
    (sym_identifier, ACTIONS 9), (anon_sym_import, ACTIONS 11), (anon_sym_from, ACTIONS 13),
    (anon_sym_LPAREN, ACTIONS 15), (anon_sym_STAR, ACTIONS 17), (anon_sym_print, ACTIONS 19),
    (anon_sym_comptime, ACTIONS 99), (anon_sym_assert, ACTIONS 23),
    (anon_sym___comptime_assert, ACTIONS 25), (anon_sym_return, ACTIONS 27),
    (anon_sym_del, ACTIONS 29), (anon_sym_raise, ACTIONS 31), (anon_sym_pass, ACTIONS 33),
    (anon_sym_break, ACTIONS 35), (anon_sym_continue, ACTIONS 37),
    (anon_sym___extension, ACTIONS 101), (anon_sym___mlir_region, ACTIONS 103),
    (anon_sym_if, ACTIONS 105), (anon_sym_match, ACTIONS 107), (anon_sym_async, ACTIONS 109),
    (anon_sym_for, ACTIONS 111), (anon_sym_while, ACTIONS 113), (anon_sym_try, ACTIONS 115),
    (anon_sym_with, ACTIONS 117), (anon_sym_def, ACTIONS 119), (anon_sym_fn, ACTIONS 119),
    (anon_sym_LBRACK, ACTIONS 59), (anon_sym_LBRACE, ACTIONS 61), (anon_sym_global, ACTIONS 63),
    (anon_sym_nonlocal, ACTIONS 65), (anon_sym_exec, ACTIONS 67), (anon_sym_type, ACTIONS 69),
    (anon_sym_class, ACTIONS 121), (anon_sym_struct, ACTIONS 121), (anon_sym_mut, ACTIONS 73),
    (anon_sym_out, ACTIONS 73), (anon_sym_trait, ACTIONS 123), (anon_sym_AT, ACTIONS 77),
    (anon_sym_DASH, ACTIONS 79), (anon_sym_PLUS, ACTIONS 79), (anon_sym_ref, ACTIONS 81),
    (anon_sym_var, ACTIONS 81), (anon_sym_not, ACTIONS 83), (anon_sym_TILDE, ACTIONS 79),
    (anon_sym_lambda, ACTIONS 85), (anon_sym_yield, ACTIONS 87), (sym_ellipsis, ACTIONS 89),
    (anon_sym___mlir_type, ACTIONS 91), (sym_integer, ACTIONS 93), (sym_float, ACTIONS 89),
    (anon_sym_await, ACTIONS 95), (sym_true, ACTIONS 93), (sym_false, ACTIONS 93),
    (sym_none, ACTIONS 93), (sym_comment, ACTIONS 3), (sym_line_continuation, ACTIONS 3),
    (sym__dedent, ACTIONS 129), (sym_string_start, ACTIONS 97)]"

definition parse_table_197 :: "(nat \<times> nat) list" where "parse_table_197 = [
    (sym__statement, STATE 925), (sym__simple_statements, STATE 925),
    (sym_import_statement, STATE 11814), (sym_future_import_statement, STATE 11814),
    (sym_import_from_statement, STATE 11814), (sym_print_statement, STATE 11814),
    (sym_assert_statement, STATE 11814), (sym_comptime_assert_statement, STATE 11814),
    (sym_expression_statement, STATE 11814), (sym_tuple_expression, STATE 12425),
    (sym_named_expression, STATE 7969), (sym__named_expression_lhs, STATE 12752),
    (sym_return_statement, STATE 11814), (sym_delete_statement, STATE 11814),
    (sym_raise_statement, STATE 11814), (sym_pass_statement, STATE 11814),
    (sym_break_statement, STATE 11814), (sym_continue_statement, STATE 11814),
    (sym_extension_definition, STATE 925), (sym_mlir_region, STATE 925),
    (sym_comptime_statement, STATE 925), (sym_if_statement, STATE 925),
    (sym_match_statement, STATE 925), (sym_for_statement, STATE 925),
    (sym_while_statement, STATE 925), (sym_try_statement, STATE 925),
    (sym_with_statement, STATE 925), (sym_function_definition, STATE 925),
    (sym_global_statement, STATE 11814), (sym_nonlocal_statement, STATE 11814),
    (sym_exec_statement, STATE 11814), (sym_type_alias_statement, STATE 11814),
    (sym_parameterized_alias_statement, STATE 11814), (sym_class_definition, STATE 925),
    (sym_trait_definition, STATE 925), (sym_decorated_definition, STATE 925),
    (sym_decorator, STATE 3670), (sym_block, STATE 5141), (sym_pattern, STATE 8086),
    (sym_tuple_pattern, STATE 8101), (sym_list_pattern, STATE 8101),
    (sym_list_splat_pattern, STATE 6819), (sym_as_pattern, STATE 7969),
    (sym_expression, STATE 9883), (sym_primary_expression, STATE 7326),
    (sym_comptime_expression, STATE 7017), (sym_transfer_expression, STATE 7017),
    (sym_not_operator, STATE 7969), (sym_boolean_operator, STATE 7969),
    (sym_binary_operator, STATE 7017), (sym_unary_operator, STATE 7017),
    (sym_comparison_operator, STATE 7969), (sym_lambda, STATE 7969),
    (sym_assignment, STATE 12425), (sym_augmented_assignment, STATE 12425),
    (sym_pattern_list, STATE 8578), (sym_yield, STATE 12425), (sym_attribute, STATE 6836),
    (sym_subscript, STATE 6838), (sym_call, STATE 6845), (sym_mlir_type, STATE 7017),
    (sym_list, STATE 7017), (sym_set, STATE 7017), (sym_tuple, STATE 7017),
    (sym_dictionary, STATE 7017), (sym_struct_literal, STATE 7017),
    (sym_list_comprehension, STATE 7017), (sym_dictionary_comprehension, STATE 7017),
    (sym_set_comprehension, STATE 7017), (sym_generator_expression, STATE 7017),
    (sym_parenthesized_expression, STATE 7017), (sym_conditional_expression, STATE 7969),
    (sym_concatenated_string, STATE 7017), (sym_string, STATE 6751), (sym_await, STATE 7017),
    (aux_sym_module_repeat1, STATE 925), (aux_sym_decorated_definition_repeat1, STATE 3670),
    (sym_identifier, ACTIONS 9), (anon_sym_import, ACTIONS 11), (anon_sym_from, ACTIONS 13),
    (anon_sym_LPAREN, ACTIONS 15), (anon_sym_STAR, ACTIONS 17), (anon_sym_print, ACTIONS 19),
    (anon_sym_comptime, ACTIONS 99), (anon_sym_assert, ACTIONS 23),
    (anon_sym___comptime_assert, ACTIONS 25), (anon_sym_return, ACTIONS 27),
    (anon_sym_del, ACTIONS 29), (anon_sym_raise, ACTIONS 31), (anon_sym_pass, ACTIONS 33),
    (anon_sym_break, ACTIONS 35), (anon_sym_continue, ACTIONS 37),
    (anon_sym___extension, ACTIONS 101), (anon_sym___mlir_region, ACTIONS 103),
    (anon_sym_if, ACTIONS 105), (anon_sym_match, ACTIONS 107), (anon_sym_async, ACTIONS 109),
    (anon_sym_for, ACTIONS 111), (anon_sym_while, ACTIONS 113), (anon_sym_try, ACTIONS 115),
    (anon_sym_with, ACTIONS 117), (anon_sym_def, ACTIONS 119), (anon_sym_fn, ACTIONS 119),
    (anon_sym_LBRACK, ACTIONS 59), (anon_sym_LBRACE, ACTIONS 61), (anon_sym_global, ACTIONS 63),
    (anon_sym_nonlocal, ACTIONS 65), (anon_sym_exec, ACTIONS 67), (anon_sym_type, ACTIONS 69),
    (anon_sym_class, ACTIONS 121), (anon_sym_struct, ACTIONS 121), (anon_sym_mut, ACTIONS 73),
    (anon_sym_out, ACTIONS 73), (anon_sym_trait, ACTIONS 123), (anon_sym_AT, ACTIONS 77),
    (anon_sym_DASH, ACTIONS 79), (anon_sym_PLUS, ACTIONS 79), (anon_sym_ref, ACTIONS 81),
    (anon_sym_var, ACTIONS 81), (anon_sym_not, ACTIONS 83), (anon_sym_TILDE, ACTIONS 79),
    (anon_sym_lambda, ACTIONS 85), (anon_sym_yield, ACTIONS 87), (sym_ellipsis, ACTIONS 89),
    (anon_sym___mlir_type, ACTIONS 91), (sym_integer, ACTIONS 93), (sym_float, ACTIONS 89),
    (anon_sym_await, ACTIONS 95), (sym_true, ACTIONS 93), (sym_false, ACTIONS 93),
    (sym_none, ACTIONS 93), (sym_comment, ACTIONS 3), (sym_line_continuation, ACTIONS 3),
    (sym__dedent, ACTIONS 129), (sym_string_start, ACTIONS 97)]"

definition parse_table_198 :: "(nat \<times> nat) list" where "parse_table_198 = [
    (sym__statement, STATE 925), (sym__simple_statements, STATE 925),
    (sym_import_statement, STATE 11814), (sym_future_import_statement, STATE 11814),
    (sym_import_from_statement, STATE 11814), (sym_print_statement, STATE 11814),
    (sym_assert_statement, STATE 11814), (sym_comptime_assert_statement, STATE 11814),
    (sym_expression_statement, STATE 11814), (sym_tuple_expression, STATE 12425),
    (sym_named_expression, STATE 7969), (sym__named_expression_lhs, STATE 12752),
    (sym_return_statement, STATE 11814), (sym_delete_statement, STATE 11814),
    (sym_raise_statement, STATE 11814), (sym_pass_statement, STATE 11814),
    (sym_break_statement, STATE 11814), (sym_continue_statement, STATE 11814),
    (sym_extension_definition, STATE 925), (sym_mlir_region, STATE 925),
    (sym_comptime_statement, STATE 925), (sym_if_statement, STATE 925),
    (sym_match_statement, STATE 925), (sym_for_statement, STATE 925),
    (sym_while_statement, STATE 925), (sym_try_statement, STATE 925),
    (sym_with_statement, STATE 925), (sym_function_definition, STATE 925),
    (sym_global_statement, STATE 11814), (sym_nonlocal_statement, STATE 11814),
    (sym_exec_statement, STATE 11814), (sym_type_alias_statement, STATE 11814),
    (sym_parameterized_alias_statement, STATE 11814), (sym_class_definition, STATE 925),
    (sym_trait_definition, STATE 925), (sym_decorated_definition, STATE 925),
    (sym_decorator, STATE 3670), (sym_block, STATE 5143), (sym_pattern, STATE 8086),
    (sym_tuple_pattern, STATE 8101), (sym_list_pattern, STATE 8101),
    (sym_list_splat_pattern, STATE 6819), (sym_as_pattern, STATE 7969),
    (sym_expression, STATE 9883), (sym_primary_expression, STATE 7326),
    (sym_comptime_expression, STATE 7017), (sym_transfer_expression, STATE 7017),
    (sym_not_operator, STATE 7969), (sym_boolean_operator, STATE 7969),
    (sym_binary_operator, STATE 7017), (sym_unary_operator, STATE 7017),
    (sym_comparison_operator, STATE 7969), (sym_lambda, STATE 7969),
    (sym_assignment, STATE 12425), (sym_augmented_assignment, STATE 12425),
    (sym_pattern_list, STATE 8578), (sym_yield, STATE 12425), (sym_attribute, STATE 6836),
    (sym_subscript, STATE 6838), (sym_call, STATE 6845), (sym_mlir_type, STATE 7017),
    (sym_list, STATE 7017), (sym_set, STATE 7017), (sym_tuple, STATE 7017),
    (sym_dictionary, STATE 7017), (sym_struct_literal, STATE 7017),
    (sym_list_comprehension, STATE 7017), (sym_dictionary_comprehension, STATE 7017),
    (sym_set_comprehension, STATE 7017), (sym_generator_expression, STATE 7017),
    (sym_parenthesized_expression, STATE 7017), (sym_conditional_expression, STATE 7969),
    (sym_concatenated_string, STATE 7017), (sym_string, STATE 6751), (sym_await, STATE 7017),
    (aux_sym_module_repeat1, STATE 925), (aux_sym_decorated_definition_repeat1, STATE 3670),
    (sym_identifier, ACTIONS 9), (anon_sym_import, ACTIONS 11), (anon_sym_from, ACTIONS 13),
    (anon_sym_LPAREN, ACTIONS 15), (anon_sym_STAR, ACTIONS 17), (anon_sym_print, ACTIONS 19),
    (anon_sym_comptime, ACTIONS 99), (anon_sym_assert, ACTIONS 23),
    (anon_sym___comptime_assert, ACTIONS 25), (anon_sym_return, ACTIONS 27),
    (anon_sym_del, ACTIONS 29), (anon_sym_raise, ACTIONS 31), (anon_sym_pass, ACTIONS 33),
    (anon_sym_break, ACTIONS 35), (anon_sym_continue, ACTIONS 37),
    (anon_sym___extension, ACTIONS 101), (anon_sym___mlir_region, ACTIONS 103),
    (anon_sym_if, ACTIONS 105), (anon_sym_match, ACTIONS 107), (anon_sym_async, ACTIONS 109),
    (anon_sym_for, ACTIONS 111), (anon_sym_while, ACTIONS 113), (anon_sym_try, ACTIONS 115),
    (anon_sym_with, ACTIONS 117), (anon_sym_def, ACTIONS 119), (anon_sym_fn, ACTIONS 119),
    (anon_sym_LBRACK, ACTIONS 59), (anon_sym_LBRACE, ACTIONS 61), (anon_sym_global, ACTIONS 63),
    (anon_sym_nonlocal, ACTIONS 65), (anon_sym_exec, ACTIONS 67), (anon_sym_type, ACTIONS 69),
    (anon_sym_class, ACTIONS 121), (anon_sym_struct, ACTIONS 121), (anon_sym_mut, ACTIONS 73),
    (anon_sym_out, ACTIONS 73), (anon_sym_trait, ACTIONS 123), (anon_sym_AT, ACTIONS 77),
    (anon_sym_DASH, ACTIONS 79), (anon_sym_PLUS, ACTIONS 79), (anon_sym_ref, ACTIONS 81),
    (anon_sym_var, ACTIONS 81), (anon_sym_not, ACTIONS 83), (anon_sym_TILDE, ACTIONS 79),
    (anon_sym_lambda, ACTIONS 85), (anon_sym_yield, ACTIONS 87), (sym_ellipsis, ACTIONS 89),
    (anon_sym___mlir_type, ACTIONS 91), (sym_integer, ACTIONS 93), (sym_float, ACTIONS 89),
    (anon_sym_await, ACTIONS 95), (sym_true, ACTIONS 93), (sym_false, ACTIONS 93),
    (sym_none, ACTIONS 93), (sym_comment, ACTIONS 3), (sym_line_continuation, ACTIONS 3),
    (sym__dedent, ACTIONS 129), (sym_string_start, ACTIONS 97)]"

definition parse_table_199 :: "(nat \<times> nat) list" where "parse_table_199 = [
    (sym__statement, STATE 925), (sym__simple_statements, STATE 925),
    (sym_import_statement, STATE 11814), (sym_future_import_statement, STATE 11814),
    (sym_import_from_statement, STATE 11814), (sym_print_statement, STATE 11814),
    (sym_assert_statement, STATE 11814), (sym_comptime_assert_statement, STATE 11814),
    (sym_expression_statement, STATE 11814), (sym_tuple_expression, STATE 12425),
    (sym_named_expression, STATE 7969), (sym__named_expression_lhs, STATE 12752),
    (sym_return_statement, STATE 11814), (sym_delete_statement, STATE 11814),
    (sym_raise_statement, STATE 11814), (sym_pass_statement, STATE 11814),
    (sym_break_statement, STATE 11814), (sym_continue_statement, STATE 11814),
    (sym_extension_definition, STATE 925), (sym_mlir_region, STATE 925),
    (sym_comptime_statement, STATE 925), (sym_if_statement, STATE 925),
    (sym_match_statement, STATE 925), (sym_for_statement, STATE 925),
    (sym_while_statement, STATE 925), (sym_try_statement, STATE 925),
    (sym_with_statement, STATE 925), (sym_function_definition, STATE 925),
    (sym_global_statement, STATE 11814), (sym_nonlocal_statement, STATE 11814),
    (sym_exec_statement, STATE 11814), (sym_type_alias_statement, STATE 11814),
    (sym_parameterized_alias_statement, STATE 11814), (sym_class_definition, STATE 925),
    (sym_trait_definition, STATE 925), (sym_decorated_definition, STATE 925),
    (sym_decorator, STATE 3670), (sym_block, STATE 5147), (sym_pattern, STATE 8086),
    (sym_tuple_pattern, STATE 8101), (sym_list_pattern, STATE 8101),
    (sym_list_splat_pattern, STATE 6819), (sym_as_pattern, STATE 7969),
    (sym_expression, STATE 9883), (sym_primary_expression, STATE 7326),
    (sym_comptime_expression, STATE 7017), (sym_transfer_expression, STATE 7017),
    (sym_not_operator, STATE 7969), (sym_boolean_operator, STATE 7969),
    (sym_binary_operator, STATE 7017), (sym_unary_operator, STATE 7017),
    (sym_comparison_operator, STATE 7969), (sym_lambda, STATE 7969),
    (sym_assignment, STATE 12425), (sym_augmented_assignment, STATE 12425),
    (sym_pattern_list, STATE 8578), (sym_yield, STATE 12425), (sym_attribute, STATE 6836),
    (sym_subscript, STATE 6838), (sym_call, STATE 6845), (sym_mlir_type, STATE 7017),
    (sym_list, STATE 7017), (sym_set, STATE 7017), (sym_tuple, STATE 7017),
    (sym_dictionary, STATE 7017), (sym_struct_literal, STATE 7017),
    (sym_list_comprehension, STATE 7017), (sym_dictionary_comprehension, STATE 7017),
    (sym_set_comprehension, STATE 7017), (sym_generator_expression, STATE 7017),
    (sym_parenthesized_expression, STATE 7017), (sym_conditional_expression, STATE 7969),
    (sym_concatenated_string, STATE 7017), (sym_string, STATE 6751), (sym_await, STATE 7017),
    (aux_sym_module_repeat1, STATE 925), (aux_sym_decorated_definition_repeat1, STATE 3670),
    (sym_identifier, ACTIONS 9), (anon_sym_import, ACTIONS 11), (anon_sym_from, ACTIONS 13),
    (anon_sym_LPAREN, ACTIONS 15), (anon_sym_STAR, ACTIONS 17), (anon_sym_print, ACTIONS 19),
    (anon_sym_comptime, ACTIONS 99), (anon_sym_assert, ACTIONS 23),
    (anon_sym___comptime_assert, ACTIONS 25), (anon_sym_return, ACTIONS 27),
    (anon_sym_del, ACTIONS 29), (anon_sym_raise, ACTIONS 31), (anon_sym_pass, ACTIONS 33),
    (anon_sym_break, ACTIONS 35), (anon_sym_continue, ACTIONS 37),
    (anon_sym___extension, ACTIONS 101), (anon_sym___mlir_region, ACTIONS 103),
    (anon_sym_if, ACTIONS 105), (anon_sym_match, ACTIONS 107), (anon_sym_async, ACTIONS 109),
    (anon_sym_for, ACTIONS 111), (anon_sym_while, ACTIONS 113), (anon_sym_try, ACTIONS 115),
    (anon_sym_with, ACTIONS 117), (anon_sym_def, ACTIONS 119), (anon_sym_fn, ACTIONS 119),
    (anon_sym_LBRACK, ACTIONS 59), (anon_sym_LBRACE, ACTIONS 61), (anon_sym_global, ACTIONS 63),
    (anon_sym_nonlocal, ACTIONS 65), (anon_sym_exec, ACTIONS 67), (anon_sym_type, ACTIONS 69),
    (anon_sym_class, ACTIONS 121), (anon_sym_struct, ACTIONS 121), (anon_sym_mut, ACTIONS 73),
    (anon_sym_out, ACTIONS 73), (anon_sym_trait, ACTIONS 123), (anon_sym_AT, ACTIONS 77),
    (anon_sym_DASH, ACTIONS 79), (anon_sym_PLUS, ACTIONS 79), (anon_sym_ref, ACTIONS 81),
    (anon_sym_var, ACTIONS 81), (anon_sym_not, ACTIONS 83), (anon_sym_TILDE, ACTIONS 79),
    (anon_sym_lambda, ACTIONS 85), (anon_sym_yield, ACTIONS 87), (sym_ellipsis, ACTIONS 89),
    (anon_sym___mlir_type, ACTIONS 91), (sym_integer, ACTIONS 93), (sym_float, ACTIONS 89),
    (anon_sym_await, ACTIONS 95), (sym_true, ACTIONS 93), (sym_false, ACTIONS 93),
    (sym_none, ACTIONS 93), (sym_comment, ACTIONS 3), (sym_line_continuation, ACTIONS 3),
    (sym__dedent, ACTIONS 129), (sym_string_start, ACTIONS 97)]"

definition parse_table_200 :: "(nat \<times> nat) list" where "parse_table_200 = [
    (sym__statement, STATE 925), (sym__simple_statements, STATE 925),
    (sym_import_statement, STATE 11814), (sym_future_import_statement, STATE 11814),
    (sym_import_from_statement, STATE 11814), (sym_print_statement, STATE 11814),
    (sym_assert_statement, STATE 11814), (sym_comptime_assert_statement, STATE 11814),
    (sym_expression_statement, STATE 11814), (sym_tuple_expression, STATE 12425),
    (sym_named_expression, STATE 7969), (sym__named_expression_lhs, STATE 12752),
    (sym_return_statement, STATE 11814), (sym_delete_statement, STATE 11814),
    (sym_raise_statement, STATE 11814), (sym_pass_statement, STATE 11814),
    (sym_break_statement, STATE 11814), (sym_continue_statement, STATE 11814),
    (sym_extension_definition, STATE 925), (sym_mlir_region, STATE 925),
    (sym_comptime_statement, STATE 925), (sym_if_statement, STATE 925),
    (sym_match_statement, STATE 925), (sym_for_statement, STATE 925),
    (sym_while_statement, STATE 925), (sym_try_statement, STATE 925),
    (sym_with_statement, STATE 925), (sym_function_definition, STATE 925),
    (sym_global_statement, STATE 11814), (sym_nonlocal_statement, STATE 11814),
    (sym_exec_statement, STATE 11814), (sym_type_alias_statement, STATE 11814),
    (sym_parameterized_alias_statement, STATE 11814), (sym_class_definition, STATE 925),
    (sym_trait_definition, STATE 925), (sym_decorated_definition, STATE 925),
    (sym_decorator, STATE 3670), (sym_block, STATE 5151), (sym_pattern, STATE 8086),
    (sym_tuple_pattern, STATE 8101), (sym_list_pattern, STATE 8101),
    (sym_list_splat_pattern, STATE 6819), (sym_as_pattern, STATE 7969),
    (sym_expression, STATE 9883), (sym_primary_expression, STATE 7326),
    (sym_comptime_expression, STATE 7017), (sym_transfer_expression, STATE 7017),
    (sym_not_operator, STATE 7969), (sym_boolean_operator, STATE 7969),
    (sym_binary_operator, STATE 7017), (sym_unary_operator, STATE 7017),
    (sym_comparison_operator, STATE 7969), (sym_lambda, STATE 7969),
    (sym_assignment, STATE 12425), (sym_augmented_assignment, STATE 12425),
    (sym_pattern_list, STATE 8578), (sym_yield, STATE 12425), (sym_attribute, STATE 6836),
    (sym_subscript, STATE 6838), (sym_call, STATE 6845), (sym_mlir_type, STATE 7017),
    (sym_list, STATE 7017), (sym_set, STATE 7017), (sym_tuple, STATE 7017),
    (sym_dictionary, STATE 7017), (sym_struct_literal, STATE 7017),
    (sym_list_comprehension, STATE 7017), (sym_dictionary_comprehension, STATE 7017),
    (sym_set_comprehension, STATE 7017), (sym_generator_expression, STATE 7017),
    (sym_parenthesized_expression, STATE 7017), (sym_conditional_expression, STATE 7969),
    (sym_concatenated_string, STATE 7017), (sym_string, STATE 6751), (sym_await, STATE 7017),
    (aux_sym_module_repeat1, STATE 925), (aux_sym_decorated_definition_repeat1, STATE 3670),
    (sym_identifier, ACTIONS 9), (anon_sym_import, ACTIONS 11), (anon_sym_from, ACTIONS 13),
    (anon_sym_LPAREN, ACTIONS 15), (anon_sym_STAR, ACTIONS 17), (anon_sym_print, ACTIONS 19),
    (anon_sym_comptime, ACTIONS 99), (anon_sym_assert, ACTIONS 23),
    (anon_sym___comptime_assert, ACTIONS 25), (anon_sym_return, ACTIONS 27),
    (anon_sym_del, ACTIONS 29), (anon_sym_raise, ACTIONS 31), (anon_sym_pass, ACTIONS 33),
    (anon_sym_break, ACTIONS 35), (anon_sym_continue, ACTIONS 37),
    (anon_sym___extension, ACTIONS 101), (anon_sym___mlir_region, ACTIONS 103),
    (anon_sym_if, ACTIONS 105), (anon_sym_match, ACTIONS 107), (anon_sym_async, ACTIONS 109),
    (anon_sym_for, ACTIONS 111), (anon_sym_while, ACTIONS 113), (anon_sym_try, ACTIONS 115),
    (anon_sym_with, ACTIONS 117), (anon_sym_def, ACTIONS 119), (anon_sym_fn, ACTIONS 119),
    (anon_sym_LBRACK, ACTIONS 59), (anon_sym_LBRACE, ACTIONS 61), (anon_sym_global, ACTIONS 63),
    (anon_sym_nonlocal, ACTIONS 65), (anon_sym_exec, ACTIONS 67), (anon_sym_type, ACTIONS 69),
    (anon_sym_class, ACTIONS 121), (anon_sym_struct, ACTIONS 121), (anon_sym_mut, ACTIONS 73),
    (anon_sym_out, ACTIONS 73), (anon_sym_trait, ACTIONS 123), (anon_sym_AT, ACTIONS 77),
    (anon_sym_DASH, ACTIONS 79), (anon_sym_PLUS, ACTIONS 79), (anon_sym_ref, ACTIONS 81),
    (anon_sym_var, ACTIONS 81), (anon_sym_not, ACTIONS 83), (anon_sym_TILDE, ACTIONS 79),
    (anon_sym_lambda, ACTIONS 85), (anon_sym_yield, ACTIONS 87), (sym_ellipsis, ACTIONS 89),
    (anon_sym___mlir_type, ACTIONS 91), (sym_integer, ACTIONS 93), (sym_float, ACTIONS 89),
    (anon_sym_await, ACTIONS 95), (sym_true, ACTIONS 93), (sym_false, ACTIONS 93),
    (sym_none, ACTIONS 93), (sym_comment, ACTIONS 3), (sym_line_continuation, ACTIONS 3),
    (sym__dedent, ACTIONS 129), (sym_string_start, ACTIONS 97)]"

definition parse_table_201 :: "(nat \<times> nat) list" where "parse_table_201 = [
    (sym__statement, STATE 925), (sym__simple_statements, STATE 925),
    (sym_import_statement, STATE 11814), (sym_future_import_statement, STATE 11814),
    (sym_import_from_statement, STATE 11814), (sym_print_statement, STATE 11814),
    (sym_assert_statement, STATE 11814), (sym_comptime_assert_statement, STATE 11814),
    (sym_expression_statement, STATE 11814), (sym_tuple_expression, STATE 12425),
    (sym_named_expression, STATE 7969), (sym__named_expression_lhs, STATE 12752),
    (sym_return_statement, STATE 11814), (sym_delete_statement, STATE 11814),
    (sym_raise_statement, STATE 11814), (sym_pass_statement, STATE 11814),
    (sym_break_statement, STATE 11814), (sym_continue_statement, STATE 11814),
    (sym_extension_definition, STATE 925), (sym_mlir_region, STATE 925),
    (sym_comptime_statement, STATE 925), (sym_if_statement, STATE 925),
    (sym_match_statement, STATE 925), (sym_for_statement, STATE 925),
    (sym_while_statement, STATE 925), (sym_try_statement, STATE 925),
    (sym_with_statement, STATE 925), (sym_function_definition, STATE 925),
    (sym_global_statement, STATE 11814), (sym_nonlocal_statement, STATE 11814),
    (sym_exec_statement, STATE 11814), (sym_type_alias_statement, STATE 11814),
    (sym_parameterized_alias_statement, STATE 11814), (sym_class_definition, STATE 925),
    (sym_trait_definition, STATE 925), (sym_decorated_definition, STATE 925),
    (sym_decorator, STATE 3670), (sym_block, STATE 5154), (sym_pattern, STATE 8086),
    (sym_tuple_pattern, STATE 8101), (sym_list_pattern, STATE 8101),
    (sym_list_splat_pattern, STATE 6819), (sym_as_pattern, STATE 7969),
    (sym_expression, STATE 9883), (sym_primary_expression, STATE 7326),
    (sym_comptime_expression, STATE 7017), (sym_transfer_expression, STATE 7017),
    (sym_not_operator, STATE 7969), (sym_boolean_operator, STATE 7969),
    (sym_binary_operator, STATE 7017), (sym_unary_operator, STATE 7017),
    (sym_comparison_operator, STATE 7969), (sym_lambda, STATE 7969),
    (sym_assignment, STATE 12425), (sym_augmented_assignment, STATE 12425),
    (sym_pattern_list, STATE 8578), (sym_yield, STATE 12425), (sym_attribute, STATE 6836),
    (sym_subscript, STATE 6838), (sym_call, STATE 6845), (sym_mlir_type, STATE 7017),
    (sym_list, STATE 7017), (sym_set, STATE 7017), (sym_tuple, STATE 7017),
    (sym_dictionary, STATE 7017), (sym_struct_literal, STATE 7017),
    (sym_list_comprehension, STATE 7017), (sym_dictionary_comprehension, STATE 7017),
    (sym_set_comprehension, STATE 7017), (sym_generator_expression, STATE 7017),
    (sym_parenthesized_expression, STATE 7017), (sym_conditional_expression, STATE 7969),
    (sym_concatenated_string, STATE 7017), (sym_string, STATE 6751), (sym_await, STATE 7017),
    (aux_sym_module_repeat1, STATE 925), (aux_sym_decorated_definition_repeat1, STATE 3670),
    (sym_identifier, ACTIONS 9), (anon_sym_import, ACTIONS 11), (anon_sym_from, ACTIONS 13),
    (anon_sym_LPAREN, ACTIONS 15), (anon_sym_STAR, ACTIONS 17), (anon_sym_print, ACTIONS 19),
    (anon_sym_comptime, ACTIONS 99), (anon_sym_assert, ACTIONS 23),
    (anon_sym___comptime_assert, ACTIONS 25), (anon_sym_return, ACTIONS 27),
    (anon_sym_del, ACTIONS 29), (anon_sym_raise, ACTIONS 31), (anon_sym_pass, ACTIONS 33),
    (anon_sym_break, ACTIONS 35), (anon_sym_continue, ACTIONS 37),
    (anon_sym___extension, ACTIONS 101), (anon_sym___mlir_region, ACTIONS 103),
    (anon_sym_if, ACTIONS 105), (anon_sym_match, ACTIONS 107), (anon_sym_async, ACTIONS 109),
    (anon_sym_for, ACTIONS 111), (anon_sym_while, ACTIONS 113), (anon_sym_try, ACTIONS 115),
    (anon_sym_with, ACTIONS 117), (anon_sym_def, ACTIONS 119), (anon_sym_fn, ACTIONS 119),
    (anon_sym_LBRACK, ACTIONS 59), (anon_sym_LBRACE, ACTIONS 61), (anon_sym_global, ACTIONS 63),
    (anon_sym_nonlocal, ACTIONS 65), (anon_sym_exec, ACTIONS 67), (anon_sym_type, ACTIONS 69),
    (anon_sym_class, ACTIONS 121), (anon_sym_struct, ACTIONS 121), (anon_sym_mut, ACTIONS 73),
    (anon_sym_out, ACTIONS 73), (anon_sym_trait, ACTIONS 123), (anon_sym_AT, ACTIONS 77),
    (anon_sym_DASH, ACTIONS 79), (anon_sym_PLUS, ACTIONS 79), (anon_sym_ref, ACTIONS 81),
    (anon_sym_var, ACTIONS 81), (anon_sym_not, ACTIONS 83), (anon_sym_TILDE, ACTIONS 79),
    (anon_sym_lambda, ACTIONS 85), (anon_sym_yield, ACTIONS 87), (sym_ellipsis, ACTIONS 89),
    (anon_sym___mlir_type, ACTIONS 91), (sym_integer, ACTIONS 93), (sym_float, ACTIONS 89),
    (anon_sym_await, ACTIONS 95), (sym_true, ACTIONS 93), (sym_false, ACTIONS 93),
    (sym_none, ACTIONS 93), (sym_comment, ACTIONS 3), (sym_line_continuation, ACTIONS 3),
    (sym__dedent, ACTIONS 129), (sym_string_start, ACTIONS 97)]"

definition parse_table_202 :: "(nat \<times> nat) list" where "parse_table_202 = [
    (sym__statement, STATE 925), (sym__simple_statements, STATE 925),
    (sym_import_statement, STATE 11814), (sym_future_import_statement, STATE 11814),
    (sym_import_from_statement, STATE 11814), (sym_print_statement, STATE 11814),
    (sym_assert_statement, STATE 11814), (sym_comptime_assert_statement, STATE 11814),
    (sym_expression_statement, STATE 11814), (sym_tuple_expression, STATE 12425),
    (sym_named_expression, STATE 7969), (sym__named_expression_lhs, STATE 12752),
    (sym_return_statement, STATE 11814), (sym_delete_statement, STATE 11814),
    (sym_raise_statement, STATE 11814), (sym_pass_statement, STATE 11814),
    (sym_break_statement, STATE 11814), (sym_continue_statement, STATE 11814),
    (sym_extension_definition, STATE 925), (sym_mlir_region, STATE 925),
    (sym_comptime_statement, STATE 925), (sym_if_statement, STATE 925),
    (sym_match_statement, STATE 925), (sym_for_statement, STATE 925),
    (sym_while_statement, STATE 925), (sym_try_statement, STATE 925),
    (sym_with_statement, STATE 925), (sym_function_definition, STATE 925),
    (sym_global_statement, STATE 11814), (sym_nonlocal_statement, STATE 11814),
    (sym_exec_statement, STATE 11814), (sym_type_alias_statement, STATE 11814),
    (sym_parameterized_alias_statement, STATE 11814), (sym_class_definition, STATE 925),
    (sym_trait_definition, STATE 925), (sym_decorated_definition, STATE 925),
    (sym_decorator, STATE 3670), (sym_block, STATE 5156), (sym_pattern, STATE 8086),
    (sym_tuple_pattern, STATE 8101), (sym_list_pattern, STATE 8101),
    (sym_list_splat_pattern, STATE 6819), (sym_as_pattern, STATE 7969),
    (sym_expression, STATE 9883), (sym_primary_expression, STATE 7326),
    (sym_comptime_expression, STATE 7017), (sym_transfer_expression, STATE 7017),
    (sym_not_operator, STATE 7969), (sym_boolean_operator, STATE 7969),
    (sym_binary_operator, STATE 7017), (sym_unary_operator, STATE 7017),
    (sym_comparison_operator, STATE 7969), (sym_lambda, STATE 7969),
    (sym_assignment, STATE 12425), (sym_augmented_assignment, STATE 12425),
    (sym_pattern_list, STATE 8578), (sym_yield, STATE 12425), (sym_attribute, STATE 6836),
    (sym_subscript, STATE 6838), (sym_call, STATE 6845), (sym_mlir_type, STATE 7017),
    (sym_list, STATE 7017), (sym_set, STATE 7017), (sym_tuple, STATE 7017),
    (sym_dictionary, STATE 7017), (sym_struct_literal, STATE 7017),
    (sym_list_comprehension, STATE 7017), (sym_dictionary_comprehension, STATE 7017),
    (sym_set_comprehension, STATE 7017), (sym_generator_expression, STATE 7017),
    (sym_parenthesized_expression, STATE 7017), (sym_conditional_expression, STATE 7969),
    (sym_concatenated_string, STATE 7017), (sym_string, STATE 6751), (sym_await, STATE 7017),
    (aux_sym_module_repeat1, STATE 925), (aux_sym_decorated_definition_repeat1, STATE 3670),
    (sym_identifier, ACTIONS 9), (anon_sym_import, ACTIONS 11), (anon_sym_from, ACTIONS 13),
    (anon_sym_LPAREN, ACTIONS 15), (anon_sym_STAR, ACTIONS 17), (anon_sym_print, ACTIONS 19),
    (anon_sym_comptime, ACTIONS 99), (anon_sym_assert, ACTIONS 23),
    (anon_sym___comptime_assert, ACTIONS 25), (anon_sym_return, ACTIONS 27),
    (anon_sym_del, ACTIONS 29), (anon_sym_raise, ACTIONS 31), (anon_sym_pass, ACTIONS 33),
    (anon_sym_break, ACTIONS 35), (anon_sym_continue, ACTIONS 37),
    (anon_sym___extension, ACTIONS 101), (anon_sym___mlir_region, ACTIONS 103),
    (anon_sym_if, ACTIONS 105), (anon_sym_match, ACTIONS 107), (anon_sym_async, ACTIONS 109),
    (anon_sym_for, ACTIONS 111), (anon_sym_while, ACTIONS 113), (anon_sym_try, ACTIONS 115),
    (anon_sym_with, ACTIONS 117), (anon_sym_def, ACTIONS 119), (anon_sym_fn, ACTIONS 119),
    (anon_sym_LBRACK, ACTIONS 59), (anon_sym_LBRACE, ACTIONS 61), (anon_sym_global, ACTIONS 63),
    (anon_sym_nonlocal, ACTIONS 65), (anon_sym_exec, ACTIONS 67), (anon_sym_type, ACTIONS 69),
    (anon_sym_class, ACTIONS 121), (anon_sym_struct, ACTIONS 121), (anon_sym_mut, ACTIONS 73),
    (anon_sym_out, ACTIONS 73), (anon_sym_trait, ACTIONS 123), (anon_sym_AT, ACTIONS 77),
    (anon_sym_DASH, ACTIONS 79), (anon_sym_PLUS, ACTIONS 79), (anon_sym_ref, ACTIONS 81),
    (anon_sym_var, ACTIONS 81), (anon_sym_not, ACTIONS 83), (anon_sym_TILDE, ACTIONS 79),
    (anon_sym_lambda, ACTIONS 85), (anon_sym_yield, ACTIONS 87), (sym_ellipsis, ACTIONS 89),
    (anon_sym___mlir_type, ACTIONS 91), (sym_integer, ACTIONS 93), (sym_float, ACTIONS 89),
    (anon_sym_await, ACTIONS 95), (sym_true, ACTIONS 93), (sym_false, ACTIONS 93),
    (sym_none, ACTIONS 93), (sym_comment, ACTIONS 3), (sym_line_continuation, ACTIONS 3),
    (sym__dedent, ACTIONS 129), (sym_string_start, ACTIONS 97)]"

definition parse_table_203 :: "(nat \<times> nat) list" where "parse_table_203 = [
    (sym__statement, STATE 925), (sym__simple_statements, STATE 925),
    (sym_import_statement, STATE 11814), (sym_future_import_statement, STATE 11814),
    (sym_import_from_statement, STATE 11814), (sym_print_statement, STATE 11814),
    (sym_assert_statement, STATE 11814), (sym_comptime_assert_statement, STATE 11814),
    (sym_expression_statement, STATE 11814), (sym_tuple_expression, STATE 12425),
    (sym_named_expression, STATE 7969), (sym__named_expression_lhs, STATE 12752),
    (sym_return_statement, STATE 11814), (sym_delete_statement, STATE 11814),
    (sym_raise_statement, STATE 11814), (sym_pass_statement, STATE 11814),
    (sym_break_statement, STATE 11814), (sym_continue_statement, STATE 11814),
    (sym_extension_definition, STATE 925), (sym_mlir_region, STATE 925),
    (sym_comptime_statement, STATE 925), (sym_if_statement, STATE 925),
    (sym_match_statement, STATE 925), (sym_for_statement, STATE 925),
    (sym_while_statement, STATE 925), (sym_try_statement, STATE 925),
    (sym_with_statement, STATE 925), (sym_function_definition, STATE 925),
    (sym_global_statement, STATE 11814), (sym_nonlocal_statement, STATE 11814),
    (sym_exec_statement, STATE 11814), (sym_type_alias_statement, STATE 11814),
    (sym_parameterized_alias_statement, STATE 11814), (sym_class_definition, STATE 925),
    (sym_trait_definition, STATE 925), (sym_decorated_definition, STATE 925),
    (sym_decorator, STATE 3670), (sym_block, STATE 5160), (sym_pattern, STATE 8086),
    (sym_tuple_pattern, STATE 8101), (sym_list_pattern, STATE 8101),
    (sym_list_splat_pattern, STATE 6819), (sym_as_pattern, STATE 7969),
    (sym_expression, STATE 9883), (sym_primary_expression, STATE 7326),
    (sym_comptime_expression, STATE 7017), (sym_transfer_expression, STATE 7017),
    (sym_not_operator, STATE 7969), (sym_boolean_operator, STATE 7969),
    (sym_binary_operator, STATE 7017), (sym_unary_operator, STATE 7017),
    (sym_comparison_operator, STATE 7969), (sym_lambda, STATE 7969),
    (sym_assignment, STATE 12425), (sym_augmented_assignment, STATE 12425),
    (sym_pattern_list, STATE 8578), (sym_yield, STATE 12425), (sym_attribute, STATE 6836),
    (sym_subscript, STATE 6838), (sym_call, STATE 6845), (sym_mlir_type, STATE 7017),
    (sym_list, STATE 7017), (sym_set, STATE 7017), (sym_tuple, STATE 7017),
    (sym_dictionary, STATE 7017), (sym_struct_literal, STATE 7017),
    (sym_list_comprehension, STATE 7017), (sym_dictionary_comprehension, STATE 7017),
    (sym_set_comprehension, STATE 7017), (sym_generator_expression, STATE 7017),
    (sym_parenthesized_expression, STATE 7017), (sym_conditional_expression, STATE 7969),
    (sym_concatenated_string, STATE 7017), (sym_string, STATE 6751), (sym_await, STATE 7017),
    (aux_sym_module_repeat1, STATE 925), (aux_sym_decorated_definition_repeat1, STATE 3670),
    (sym_identifier, ACTIONS 9), (anon_sym_import, ACTIONS 11), (anon_sym_from, ACTIONS 13),
    (anon_sym_LPAREN, ACTIONS 15), (anon_sym_STAR, ACTIONS 17), (anon_sym_print, ACTIONS 19),
    (anon_sym_comptime, ACTIONS 99), (anon_sym_assert, ACTIONS 23),
    (anon_sym___comptime_assert, ACTIONS 25), (anon_sym_return, ACTIONS 27),
    (anon_sym_del, ACTIONS 29), (anon_sym_raise, ACTIONS 31), (anon_sym_pass, ACTIONS 33),
    (anon_sym_break, ACTIONS 35), (anon_sym_continue, ACTIONS 37),
    (anon_sym___extension, ACTIONS 101), (anon_sym___mlir_region, ACTIONS 103),
    (anon_sym_if, ACTIONS 105), (anon_sym_match, ACTIONS 107), (anon_sym_async, ACTIONS 109),
    (anon_sym_for, ACTIONS 111), (anon_sym_while, ACTIONS 113), (anon_sym_try, ACTIONS 115),
    (anon_sym_with, ACTIONS 117), (anon_sym_def, ACTIONS 119), (anon_sym_fn, ACTIONS 119),
    (anon_sym_LBRACK, ACTIONS 59), (anon_sym_LBRACE, ACTIONS 61), (anon_sym_global, ACTIONS 63),
    (anon_sym_nonlocal, ACTIONS 65), (anon_sym_exec, ACTIONS 67), (anon_sym_type, ACTIONS 69),
    (anon_sym_class, ACTIONS 121), (anon_sym_struct, ACTIONS 121), (anon_sym_mut, ACTIONS 73),
    (anon_sym_out, ACTIONS 73), (anon_sym_trait, ACTIONS 123), (anon_sym_AT, ACTIONS 77),
    (anon_sym_DASH, ACTIONS 79), (anon_sym_PLUS, ACTIONS 79), (anon_sym_ref, ACTIONS 81),
    (anon_sym_var, ACTIONS 81), (anon_sym_not, ACTIONS 83), (anon_sym_TILDE, ACTIONS 79),
    (anon_sym_lambda, ACTIONS 85), (anon_sym_yield, ACTIONS 87), (sym_ellipsis, ACTIONS 89),
    (anon_sym___mlir_type, ACTIONS 91), (sym_integer, ACTIONS 93), (sym_float, ACTIONS 89),
    (anon_sym_await, ACTIONS 95), (sym_true, ACTIONS 93), (sym_false, ACTIONS 93),
    (sym_none, ACTIONS 93), (sym_comment, ACTIONS 3), (sym_line_continuation, ACTIONS 3),
    (sym__dedent, ACTIONS 129), (sym_string_start, ACTIONS 97)]"

definition parse_table_204 :: "(nat \<times> nat) list" where "parse_table_204 = [
    (sym__statement, STATE 925), (sym__simple_statements, STATE 925),
    (sym_import_statement, STATE 11814), (sym_future_import_statement, STATE 11814),
    (sym_import_from_statement, STATE 11814), (sym_print_statement, STATE 11814),
    (sym_assert_statement, STATE 11814), (sym_comptime_assert_statement, STATE 11814),
    (sym_expression_statement, STATE 11814), (sym_tuple_expression, STATE 12425),
    (sym_named_expression, STATE 7969), (sym__named_expression_lhs, STATE 12752),
    (sym_return_statement, STATE 11814), (sym_delete_statement, STATE 11814),
    (sym_raise_statement, STATE 11814), (sym_pass_statement, STATE 11814),
    (sym_break_statement, STATE 11814), (sym_continue_statement, STATE 11814),
    (sym_extension_definition, STATE 925), (sym_mlir_region, STATE 925),
    (sym_comptime_statement, STATE 925), (sym_if_statement, STATE 925),
    (sym_match_statement, STATE 925), (sym_for_statement, STATE 925),
    (sym_while_statement, STATE 925), (sym_try_statement, STATE 925),
    (sym_with_statement, STATE 925), (sym_function_definition, STATE 925),
    (sym_global_statement, STATE 11814), (sym_nonlocal_statement, STATE 11814),
    (sym_exec_statement, STATE 11814), (sym_type_alias_statement, STATE 11814),
    (sym_parameterized_alias_statement, STATE 11814), (sym_class_definition, STATE 925),
    (sym_trait_definition, STATE 925), (sym_decorated_definition, STATE 925),
    (sym_decorator, STATE 3670), (sym_block, STATE 5164), (sym_pattern, STATE 8086),
    (sym_tuple_pattern, STATE 8101), (sym_list_pattern, STATE 8101),
    (sym_list_splat_pattern, STATE 6819), (sym_as_pattern, STATE 7969),
    (sym_expression, STATE 9883), (sym_primary_expression, STATE 7326),
    (sym_comptime_expression, STATE 7017), (sym_transfer_expression, STATE 7017),
    (sym_not_operator, STATE 7969), (sym_boolean_operator, STATE 7969),
    (sym_binary_operator, STATE 7017), (sym_unary_operator, STATE 7017),
    (sym_comparison_operator, STATE 7969), (sym_lambda, STATE 7969),
    (sym_assignment, STATE 12425), (sym_augmented_assignment, STATE 12425),
    (sym_pattern_list, STATE 8578), (sym_yield, STATE 12425), (sym_attribute, STATE 6836),
    (sym_subscript, STATE 6838), (sym_call, STATE 6845), (sym_mlir_type, STATE 7017),
    (sym_list, STATE 7017), (sym_set, STATE 7017), (sym_tuple, STATE 7017),
    (sym_dictionary, STATE 7017), (sym_struct_literal, STATE 7017),
    (sym_list_comprehension, STATE 7017), (sym_dictionary_comprehension, STATE 7017),
    (sym_set_comprehension, STATE 7017), (sym_generator_expression, STATE 7017),
    (sym_parenthesized_expression, STATE 7017), (sym_conditional_expression, STATE 7969),
    (sym_concatenated_string, STATE 7017), (sym_string, STATE 6751), (sym_await, STATE 7017),
    (aux_sym_module_repeat1, STATE 925), (aux_sym_decorated_definition_repeat1, STATE 3670),
    (sym_identifier, ACTIONS 9), (anon_sym_import, ACTIONS 11), (anon_sym_from, ACTIONS 13),
    (anon_sym_LPAREN, ACTIONS 15), (anon_sym_STAR, ACTIONS 17), (anon_sym_print, ACTIONS 19),
    (anon_sym_comptime, ACTIONS 99), (anon_sym_assert, ACTIONS 23),
    (anon_sym___comptime_assert, ACTIONS 25), (anon_sym_return, ACTIONS 27),
    (anon_sym_del, ACTIONS 29), (anon_sym_raise, ACTIONS 31), (anon_sym_pass, ACTIONS 33),
    (anon_sym_break, ACTIONS 35), (anon_sym_continue, ACTIONS 37),
    (anon_sym___extension, ACTIONS 101), (anon_sym___mlir_region, ACTIONS 103),
    (anon_sym_if, ACTIONS 105), (anon_sym_match, ACTIONS 107), (anon_sym_async, ACTIONS 109),
    (anon_sym_for, ACTIONS 111), (anon_sym_while, ACTIONS 113), (anon_sym_try, ACTIONS 115),
    (anon_sym_with, ACTIONS 117), (anon_sym_def, ACTIONS 119), (anon_sym_fn, ACTIONS 119),
    (anon_sym_LBRACK, ACTIONS 59), (anon_sym_LBRACE, ACTIONS 61), (anon_sym_global, ACTIONS 63),
    (anon_sym_nonlocal, ACTIONS 65), (anon_sym_exec, ACTIONS 67), (anon_sym_type, ACTIONS 69),
    (anon_sym_class, ACTIONS 121), (anon_sym_struct, ACTIONS 121), (anon_sym_mut, ACTIONS 73),
    (anon_sym_out, ACTIONS 73), (anon_sym_trait, ACTIONS 123), (anon_sym_AT, ACTIONS 77),
    (anon_sym_DASH, ACTIONS 79), (anon_sym_PLUS, ACTIONS 79), (anon_sym_ref, ACTIONS 81),
    (anon_sym_var, ACTIONS 81), (anon_sym_not, ACTIONS 83), (anon_sym_TILDE, ACTIONS 79),
    (anon_sym_lambda, ACTIONS 85), (anon_sym_yield, ACTIONS 87), (sym_ellipsis, ACTIONS 89),
    (anon_sym___mlir_type, ACTIONS 91), (sym_integer, ACTIONS 93), (sym_float, ACTIONS 89),
    (anon_sym_await, ACTIONS 95), (sym_true, ACTIONS 93), (sym_false, ACTIONS 93),
    (sym_none, ACTIONS 93), (sym_comment, ACTIONS 3), (sym_line_continuation, ACTIONS 3),
    (sym__dedent, ACTIONS 129), (sym_string_start, ACTIONS 97)]"

definition parse_table_205 :: "(nat \<times> nat) list" where "parse_table_205 = [
    (sym__statement, STATE 925), (sym__simple_statements, STATE 925),
    (sym_import_statement, STATE 11814), (sym_future_import_statement, STATE 11814),
    (sym_import_from_statement, STATE 11814), (sym_print_statement, STATE 11814),
    (sym_assert_statement, STATE 11814), (sym_comptime_assert_statement, STATE 11814),
    (sym_expression_statement, STATE 11814), (sym_tuple_expression, STATE 12425),
    (sym_named_expression, STATE 7969), (sym__named_expression_lhs, STATE 12752),
    (sym_return_statement, STATE 11814), (sym_delete_statement, STATE 11814),
    (sym_raise_statement, STATE 11814), (sym_pass_statement, STATE 11814),
    (sym_break_statement, STATE 11814), (sym_continue_statement, STATE 11814),
    (sym_extension_definition, STATE 925), (sym_mlir_region, STATE 925),
    (sym_comptime_statement, STATE 925), (sym_if_statement, STATE 925),
    (sym_match_statement, STATE 925), (sym_for_statement, STATE 925),
    (sym_while_statement, STATE 925), (sym_try_statement, STATE 925),
    (sym_with_statement, STATE 925), (sym_function_definition, STATE 925),
    (sym_global_statement, STATE 11814), (sym_nonlocal_statement, STATE 11814),
    (sym_exec_statement, STATE 11814), (sym_type_alias_statement, STATE 11814),
    (sym_parameterized_alias_statement, STATE 11814), (sym_class_definition, STATE 925),
    (sym_trait_definition, STATE 925), (sym_decorated_definition, STATE 925),
    (sym_decorator, STATE 3670), (sym_block, STATE 5166), (sym_pattern, STATE 8086),
    (sym_tuple_pattern, STATE 8101), (sym_list_pattern, STATE 8101),
    (sym_list_splat_pattern, STATE 6819), (sym_as_pattern, STATE 7969),
    (sym_expression, STATE 9883), (sym_primary_expression, STATE 7326),
    (sym_comptime_expression, STATE 7017), (sym_transfer_expression, STATE 7017),
    (sym_not_operator, STATE 7969), (sym_boolean_operator, STATE 7969),
    (sym_binary_operator, STATE 7017), (sym_unary_operator, STATE 7017),
    (sym_comparison_operator, STATE 7969), (sym_lambda, STATE 7969),
    (sym_assignment, STATE 12425), (sym_augmented_assignment, STATE 12425),
    (sym_pattern_list, STATE 8578), (sym_yield, STATE 12425), (sym_attribute, STATE 6836),
    (sym_subscript, STATE 6838), (sym_call, STATE 6845), (sym_mlir_type, STATE 7017),
    (sym_list, STATE 7017), (sym_set, STATE 7017), (sym_tuple, STATE 7017),
    (sym_dictionary, STATE 7017), (sym_struct_literal, STATE 7017),
    (sym_list_comprehension, STATE 7017), (sym_dictionary_comprehension, STATE 7017),
    (sym_set_comprehension, STATE 7017), (sym_generator_expression, STATE 7017),
    (sym_parenthesized_expression, STATE 7017), (sym_conditional_expression, STATE 7969),
    (sym_concatenated_string, STATE 7017), (sym_string, STATE 6751), (sym_await, STATE 7017),
    (aux_sym_module_repeat1, STATE 925), (aux_sym_decorated_definition_repeat1, STATE 3670),
    (sym_identifier, ACTIONS 9), (anon_sym_import, ACTIONS 11), (anon_sym_from, ACTIONS 13),
    (anon_sym_LPAREN, ACTIONS 15), (anon_sym_STAR, ACTIONS 17), (anon_sym_print, ACTIONS 19),
    (anon_sym_comptime, ACTIONS 99), (anon_sym_assert, ACTIONS 23),
    (anon_sym___comptime_assert, ACTIONS 25), (anon_sym_return, ACTIONS 27),
    (anon_sym_del, ACTIONS 29), (anon_sym_raise, ACTIONS 31), (anon_sym_pass, ACTIONS 33),
    (anon_sym_break, ACTIONS 35), (anon_sym_continue, ACTIONS 37),
    (anon_sym___extension, ACTIONS 101), (anon_sym___mlir_region, ACTIONS 103),
    (anon_sym_if, ACTIONS 105), (anon_sym_match, ACTIONS 107), (anon_sym_async, ACTIONS 109),
    (anon_sym_for, ACTIONS 111), (anon_sym_while, ACTIONS 113), (anon_sym_try, ACTIONS 115),
    (anon_sym_with, ACTIONS 117), (anon_sym_def, ACTIONS 119), (anon_sym_fn, ACTIONS 119),
    (anon_sym_LBRACK, ACTIONS 59), (anon_sym_LBRACE, ACTIONS 61), (anon_sym_global, ACTIONS 63),
    (anon_sym_nonlocal, ACTIONS 65), (anon_sym_exec, ACTIONS 67), (anon_sym_type, ACTIONS 69),
    (anon_sym_class, ACTIONS 121), (anon_sym_struct, ACTIONS 121), (anon_sym_mut, ACTIONS 73),
    (anon_sym_out, ACTIONS 73), (anon_sym_trait, ACTIONS 123), (anon_sym_AT, ACTIONS 77),
    (anon_sym_DASH, ACTIONS 79), (anon_sym_PLUS, ACTIONS 79), (anon_sym_ref, ACTIONS 81),
    (anon_sym_var, ACTIONS 81), (anon_sym_not, ACTIONS 83), (anon_sym_TILDE, ACTIONS 79),
    (anon_sym_lambda, ACTIONS 85), (anon_sym_yield, ACTIONS 87), (sym_ellipsis, ACTIONS 89),
    (anon_sym___mlir_type, ACTIONS 91), (sym_integer, ACTIONS 93), (sym_float, ACTIONS 89),
    (anon_sym_await, ACTIONS 95), (sym_true, ACTIONS 93), (sym_false, ACTIONS 93),
    (sym_none, ACTIONS 93), (sym_comment, ACTIONS 3), (sym_line_continuation, ACTIONS 3),
    (sym__dedent, ACTIONS 129), (sym_string_start, ACTIONS 97)]"

definition parse_table_206 :: "(nat \<times> nat) list" where "parse_table_206 = [
    (sym__statement, STATE 925), (sym__simple_statements, STATE 925),
    (sym_import_statement, STATE 11814), (sym_future_import_statement, STATE 11814),
    (sym_import_from_statement, STATE 11814), (sym_print_statement, STATE 11814),
    (sym_assert_statement, STATE 11814), (sym_comptime_assert_statement, STATE 11814),
    (sym_expression_statement, STATE 11814), (sym_tuple_expression, STATE 12425),
    (sym_named_expression, STATE 7969), (sym__named_expression_lhs, STATE 12752),
    (sym_return_statement, STATE 11814), (sym_delete_statement, STATE 11814),
    (sym_raise_statement, STATE 11814), (sym_pass_statement, STATE 11814),
    (sym_break_statement, STATE 11814), (sym_continue_statement, STATE 11814),
    (sym_extension_definition, STATE 925), (sym_mlir_region, STATE 925),
    (sym_comptime_statement, STATE 925), (sym_if_statement, STATE 925),
    (sym_match_statement, STATE 925), (sym_for_statement, STATE 925),
    (sym_while_statement, STATE 925), (sym_try_statement, STATE 925),
    (sym_with_statement, STATE 925), (sym_function_definition, STATE 925),
    (sym_global_statement, STATE 11814), (sym_nonlocal_statement, STATE 11814),
    (sym_exec_statement, STATE 11814), (sym_type_alias_statement, STATE 11814),
    (sym_parameterized_alias_statement, STATE 11814), (sym_class_definition, STATE 925),
    (sym_trait_definition, STATE 925), (sym_decorated_definition, STATE 925),
    (sym_decorator, STATE 3670), (sym_block, STATE 5176), (sym_pattern, STATE 8086),
    (sym_tuple_pattern, STATE 8101), (sym_list_pattern, STATE 8101),
    (sym_list_splat_pattern, STATE 6819), (sym_as_pattern, STATE 7969),
    (sym_expression, STATE 9883), (sym_primary_expression, STATE 7326),
    (sym_comptime_expression, STATE 7017), (sym_transfer_expression, STATE 7017),
    (sym_not_operator, STATE 7969), (sym_boolean_operator, STATE 7969),
    (sym_binary_operator, STATE 7017), (sym_unary_operator, STATE 7017),
    (sym_comparison_operator, STATE 7969), (sym_lambda, STATE 7969),
    (sym_assignment, STATE 12425), (sym_augmented_assignment, STATE 12425),
    (sym_pattern_list, STATE 8578), (sym_yield, STATE 12425), (sym_attribute, STATE 6836),
    (sym_subscript, STATE 6838), (sym_call, STATE 6845), (sym_mlir_type, STATE 7017),
    (sym_list, STATE 7017), (sym_set, STATE 7017), (sym_tuple, STATE 7017),
    (sym_dictionary, STATE 7017), (sym_struct_literal, STATE 7017),
    (sym_list_comprehension, STATE 7017), (sym_dictionary_comprehension, STATE 7017),
    (sym_set_comprehension, STATE 7017), (sym_generator_expression, STATE 7017),
    (sym_parenthesized_expression, STATE 7017), (sym_conditional_expression, STATE 7969),
    (sym_concatenated_string, STATE 7017), (sym_string, STATE 6751), (sym_await, STATE 7017),
    (aux_sym_module_repeat1, STATE 925), (aux_sym_decorated_definition_repeat1, STATE 3670),
    (sym_identifier, ACTIONS 9), (anon_sym_import, ACTIONS 11), (anon_sym_from, ACTIONS 13),
    (anon_sym_LPAREN, ACTIONS 15), (anon_sym_STAR, ACTIONS 17), (anon_sym_print, ACTIONS 19),
    (anon_sym_comptime, ACTIONS 99), (anon_sym_assert, ACTIONS 23),
    (anon_sym___comptime_assert, ACTIONS 25), (anon_sym_return, ACTIONS 27),
    (anon_sym_del, ACTIONS 29), (anon_sym_raise, ACTIONS 31), (anon_sym_pass, ACTIONS 33),
    (anon_sym_break, ACTIONS 35), (anon_sym_continue, ACTIONS 37),
    (anon_sym___extension, ACTIONS 101), (anon_sym___mlir_region, ACTIONS 103),
    (anon_sym_if, ACTIONS 105), (anon_sym_match, ACTIONS 107), (anon_sym_async, ACTIONS 109),
    (anon_sym_for, ACTIONS 111), (anon_sym_while, ACTIONS 113), (anon_sym_try, ACTIONS 115),
    (anon_sym_with, ACTIONS 117), (anon_sym_def, ACTIONS 119), (anon_sym_fn, ACTIONS 119),
    (anon_sym_LBRACK, ACTIONS 59), (anon_sym_LBRACE, ACTIONS 61), (anon_sym_global, ACTIONS 63),
    (anon_sym_nonlocal, ACTIONS 65), (anon_sym_exec, ACTIONS 67), (anon_sym_type, ACTIONS 69),
    (anon_sym_class, ACTIONS 121), (anon_sym_struct, ACTIONS 121), (anon_sym_mut, ACTIONS 73),
    (anon_sym_out, ACTIONS 73), (anon_sym_trait, ACTIONS 123), (anon_sym_AT, ACTIONS 77),
    (anon_sym_DASH, ACTIONS 79), (anon_sym_PLUS, ACTIONS 79), (anon_sym_ref, ACTIONS 81),
    (anon_sym_var, ACTIONS 81), (anon_sym_not, ACTIONS 83), (anon_sym_TILDE, ACTIONS 79),
    (anon_sym_lambda, ACTIONS 85), (anon_sym_yield, ACTIONS 87), (sym_ellipsis, ACTIONS 89),
    (anon_sym___mlir_type, ACTIONS 91), (sym_integer, ACTIONS 93), (sym_float, ACTIONS 89),
    (anon_sym_await, ACTIONS 95), (sym_true, ACTIONS 93), (sym_false, ACTIONS 93),
    (sym_none, ACTIONS 93), (sym_comment, ACTIONS 3), (sym_line_continuation, ACTIONS 3),
    (sym__dedent, ACTIONS 129), (sym_string_start, ACTIONS 97)]"

definition parse_table_207 :: "(nat \<times> nat) list" where "parse_table_207 = [
    (sym__statement, STATE 925), (sym__simple_statements, STATE 925),
    (sym_import_statement, STATE 11814), (sym_future_import_statement, STATE 11814),
    (sym_import_from_statement, STATE 11814), (sym_print_statement, STATE 11814),
    (sym_assert_statement, STATE 11814), (sym_comptime_assert_statement, STATE 11814),
    (sym_expression_statement, STATE 11814), (sym_tuple_expression, STATE 12425),
    (sym_named_expression, STATE 7969), (sym__named_expression_lhs, STATE 12752),
    (sym_return_statement, STATE 11814), (sym_delete_statement, STATE 11814),
    (sym_raise_statement, STATE 11814), (sym_pass_statement, STATE 11814),
    (sym_break_statement, STATE 11814), (sym_continue_statement, STATE 11814),
    (sym_extension_definition, STATE 925), (sym_mlir_region, STATE 925),
    (sym_comptime_statement, STATE 925), (sym_if_statement, STATE 925),
    (sym_match_statement, STATE 925), (sym_for_statement, STATE 925),
    (sym_while_statement, STATE 925), (sym_try_statement, STATE 925),
    (sym_with_statement, STATE 925), (sym_function_definition, STATE 925),
    (sym_global_statement, STATE 11814), (sym_nonlocal_statement, STATE 11814),
    (sym_exec_statement, STATE 11814), (sym_type_alias_statement, STATE 11814),
    (sym_parameterized_alias_statement, STATE 11814), (sym_class_definition, STATE 925),
    (sym_trait_definition, STATE 925), (sym_decorated_definition, STATE 925),
    (sym_decorator, STATE 3670), (sym_block, STATE 5180), (sym_pattern, STATE 8086),
    (sym_tuple_pattern, STATE 8101), (sym_list_pattern, STATE 8101),
    (sym_list_splat_pattern, STATE 6819), (sym_as_pattern, STATE 7969),
    (sym_expression, STATE 9883), (sym_primary_expression, STATE 7326),
    (sym_comptime_expression, STATE 7017), (sym_transfer_expression, STATE 7017),
    (sym_not_operator, STATE 7969), (sym_boolean_operator, STATE 7969),
    (sym_binary_operator, STATE 7017), (sym_unary_operator, STATE 7017),
    (sym_comparison_operator, STATE 7969), (sym_lambda, STATE 7969),
    (sym_assignment, STATE 12425), (sym_augmented_assignment, STATE 12425),
    (sym_pattern_list, STATE 8578), (sym_yield, STATE 12425), (sym_attribute, STATE 6836),
    (sym_subscript, STATE 6838), (sym_call, STATE 6845), (sym_mlir_type, STATE 7017),
    (sym_list, STATE 7017), (sym_set, STATE 7017), (sym_tuple, STATE 7017),
    (sym_dictionary, STATE 7017), (sym_struct_literal, STATE 7017),
    (sym_list_comprehension, STATE 7017), (sym_dictionary_comprehension, STATE 7017),
    (sym_set_comprehension, STATE 7017), (sym_generator_expression, STATE 7017),
    (sym_parenthesized_expression, STATE 7017), (sym_conditional_expression, STATE 7969),
    (sym_concatenated_string, STATE 7017), (sym_string, STATE 6751), (sym_await, STATE 7017),
    (aux_sym_module_repeat1, STATE 925), (aux_sym_decorated_definition_repeat1, STATE 3670),
    (sym_identifier, ACTIONS 9), (anon_sym_import, ACTIONS 11), (anon_sym_from, ACTIONS 13),
    (anon_sym_LPAREN, ACTIONS 15), (anon_sym_STAR, ACTIONS 17), (anon_sym_print, ACTIONS 19),
    (anon_sym_comptime, ACTIONS 99), (anon_sym_assert, ACTIONS 23),
    (anon_sym___comptime_assert, ACTIONS 25), (anon_sym_return, ACTIONS 27),
    (anon_sym_del, ACTIONS 29), (anon_sym_raise, ACTIONS 31), (anon_sym_pass, ACTIONS 33),
    (anon_sym_break, ACTIONS 35), (anon_sym_continue, ACTIONS 37),
    (anon_sym___extension, ACTIONS 101), (anon_sym___mlir_region, ACTIONS 103),
    (anon_sym_if, ACTIONS 105), (anon_sym_match, ACTIONS 107), (anon_sym_async, ACTIONS 109),
    (anon_sym_for, ACTIONS 111), (anon_sym_while, ACTIONS 113), (anon_sym_try, ACTIONS 115),
    (anon_sym_with, ACTIONS 117), (anon_sym_def, ACTIONS 119), (anon_sym_fn, ACTIONS 119),
    (anon_sym_LBRACK, ACTIONS 59), (anon_sym_LBRACE, ACTIONS 61), (anon_sym_global, ACTIONS 63),
    (anon_sym_nonlocal, ACTIONS 65), (anon_sym_exec, ACTIONS 67), (anon_sym_type, ACTIONS 69),
    (anon_sym_class, ACTIONS 121), (anon_sym_struct, ACTIONS 121), (anon_sym_mut, ACTIONS 73),
    (anon_sym_out, ACTIONS 73), (anon_sym_trait, ACTIONS 123), (anon_sym_AT, ACTIONS 77),
    (anon_sym_DASH, ACTIONS 79), (anon_sym_PLUS, ACTIONS 79), (anon_sym_ref, ACTIONS 81),
    (anon_sym_var, ACTIONS 81), (anon_sym_not, ACTIONS 83), (anon_sym_TILDE, ACTIONS 79),
    (anon_sym_lambda, ACTIONS 85), (anon_sym_yield, ACTIONS 87), (sym_ellipsis, ACTIONS 89),
    (anon_sym___mlir_type, ACTIONS 91), (sym_integer, ACTIONS 93), (sym_float, ACTIONS 89),
    (anon_sym_await, ACTIONS 95), (sym_true, ACTIONS 93), (sym_false, ACTIONS 93),
    (sym_none, ACTIONS 93), (sym_comment, ACTIONS 3), (sym_line_continuation, ACTIONS 3),
    (sym__dedent, ACTIONS 129), (sym_string_start, ACTIONS 97)]"

definition parse_table_208 :: "(nat \<times> nat) list" where "parse_table_208 = [
    (sym__statement, STATE 925), (sym__simple_statements, STATE 925),
    (sym_import_statement, STATE 11814), (sym_future_import_statement, STATE 11814),
    (sym_import_from_statement, STATE 11814), (sym_print_statement, STATE 11814),
    (sym_assert_statement, STATE 11814), (sym_comptime_assert_statement, STATE 11814),
    (sym_expression_statement, STATE 11814), (sym_tuple_expression, STATE 12425),
    (sym_named_expression, STATE 7969), (sym__named_expression_lhs, STATE 12752),
    (sym_return_statement, STATE 11814), (sym_delete_statement, STATE 11814),
    (sym_raise_statement, STATE 11814), (sym_pass_statement, STATE 11814),
    (sym_break_statement, STATE 11814), (sym_continue_statement, STATE 11814),
    (sym_extension_definition, STATE 925), (sym_mlir_region, STATE 925),
    (sym_comptime_statement, STATE 925), (sym_if_statement, STATE 925),
    (sym_match_statement, STATE 925), (sym_for_statement, STATE 925),
    (sym_while_statement, STATE 925), (sym_try_statement, STATE 925),
    (sym_with_statement, STATE 925), (sym_function_definition, STATE 925),
    (sym_global_statement, STATE 11814), (sym_nonlocal_statement, STATE 11814),
    (sym_exec_statement, STATE 11814), (sym_type_alias_statement, STATE 11814),
    (sym_parameterized_alias_statement, STATE 11814), (sym_class_definition, STATE 925),
    (sym_trait_definition, STATE 925), (sym_decorated_definition, STATE 925),
    (sym_decorator, STATE 3670), (sym_block, STATE 5186), (sym_pattern, STATE 8086),
    (sym_tuple_pattern, STATE 8101), (sym_list_pattern, STATE 8101),
    (sym_list_splat_pattern, STATE 6819), (sym_as_pattern, STATE 7969),
    (sym_expression, STATE 9883), (sym_primary_expression, STATE 7326),
    (sym_comptime_expression, STATE 7017), (sym_transfer_expression, STATE 7017),
    (sym_not_operator, STATE 7969), (sym_boolean_operator, STATE 7969),
    (sym_binary_operator, STATE 7017), (sym_unary_operator, STATE 7017),
    (sym_comparison_operator, STATE 7969), (sym_lambda, STATE 7969),
    (sym_assignment, STATE 12425), (sym_augmented_assignment, STATE 12425),
    (sym_pattern_list, STATE 8578), (sym_yield, STATE 12425), (sym_attribute, STATE 6836),
    (sym_subscript, STATE 6838), (sym_call, STATE 6845), (sym_mlir_type, STATE 7017),
    (sym_list, STATE 7017), (sym_set, STATE 7017), (sym_tuple, STATE 7017),
    (sym_dictionary, STATE 7017), (sym_struct_literal, STATE 7017),
    (sym_list_comprehension, STATE 7017), (sym_dictionary_comprehension, STATE 7017),
    (sym_set_comprehension, STATE 7017), (sym_generator_expression, STATE 7017),
    (sym_parenthesized_expression, STATE 7017), (sym_conditional_expression, STATE 7969),
    (sym_concatenated_string, STATE 7017), (sym_string, STATE 6751), (sym_await, STATE 7017),
    (aux_sym_module_repeat1, STATE 925), (aux_sym_decorated_definition_repeat1, STATE 3670),
    (sym_identifier, ACTIONS 9), (anon_sym_import, ACTIONS 11), (anon_sym_from, ACTIONS 13),
    (anon_sym_LPAREN, ACTIONS 15), (anon_sym_STAR, ACTIONS 17), (anon_sym_print, ACTIONS 19),
    (anon_sym_comptime, ACTIONS 99), (anon_sym_assert, ACTIONS 23),
    (anon_sym___comptime_assert, ACTIONS 25), (anon_sym_return, ACTIONS 27),
    (anon_sym_del, ACTIONS 29), (anon_sym_raise, ACTIONS 31), (anon_sym_pass, ACTIONS 33),
    (anon_sym_break, ACTIONS 35), (anon_sym_continue, ACTIONS 37),
    (anon_sym___extension, ACTIONS 101), (anon_sym___mlir_region, ACTIONS 103),
    (anon_sym_if, ACTIONS 105), (anon_sym_match, ACTIONS 107), (anon_sym_async, ACTIONS 109),
    (anon_sym_for, ACTIONS 111), (anon_sym_while, ACTIONS 113), (anon_sym_try, ACTIONS 115),
    (anon_sym_with, ACTIONS 117), (anon_sym_def, ACTIONS 119), (anon_sym_fn, ACTIONS 119),
    (anon_sym_LBRACK, ACTIONS 59), (anon_sym_LBRACE, ACTIONS 61), (anon_sym_global, ACTIONS 63),
    (anon_sym_nonlocal, ACTIONS 65), (anon_sym_exec, ACTIONS 67), (anon_sym_type, ACTIONS 69),
    (anon_sym_class, ACTIONS 121), (anon_sym_struct, ACTIONS 121), (anon_sym_mut, ACTIONS 73),
    (anon_sym_out, ACTIONS 73), (anon_sym_trait, ACTIONS 123), (anon_sym_AT, ACTIONS 77),
    (anon_sym_DASH, ACTIONS 79), (anon_sym_PLUS, ACTIONS 79), (anon_sym_ref, ACTIONS 81),
    (anon_sym_var, ACTIONS 81), (anon_sym_not, ACTIONS 83), (anon_sym_TILDE, ACTIONS 79),
    (anon_sym_lambda, ACTIONS 85), (anon_sym_yield, ACTIONS 87), (sym_ellipsis, ACTIONS 89),
    (anon_sym___mlir_type, ACTIONS 91), (sym_integer, ACTIONS 93), (sym_float, ACTIONS 89),
    (anon_sym_await, ACTIONS 95), (sym_true, ACTIONS 93), (sym_false, ACTIONS 93),
    (sym_none, ACTIONS 93), (sym_comment, ACTIONS 3), (sym_line_continuation, ACTIONS 3),
    (sym__dedent, ACTIONS 129), (sym_string_start, ACTIONS 97)]"

definition parse_table_209 :: "(nat \<times> nat) list" where "parse_table_209 = [
    (sym__statement, STATE 925), (sym__simple_statements, STATE 925),
    (sym_import_statement, STATE 11814), (sym_future_import_statement, STATE 11814),
    (sym_import_from_statement, STATE 11814), (sym_print_statement, STATE 11814),
    (sym_assert_statement, STATE 11814), (sym_comptime_assert_statement, STATE 11814),
    (sym_expression_statement, STATE 11814), (sym_tuple_expression, STATE 12425),
    (sym_named_expression, STATE 7969), (sym__named_expression_lhs, STATE 12752),
    (sym_return_statement, STATE 11814), (sym_delete_statement, STATE 11814),
    (sym_raise_statement, STATE 11814), (sym_pass_statement, STATE 11814),
    (sym_break_statement, STATE 11814), (sym_continue_statement, STATE 11814),
    (sym_extension_definition, STATE 925), (sym_mlir_region, STATE 925),
    (sym_comptime_statement, STATE 925), (sym_if_statement, STATE 925),
    (sym_match_statement, STATE 925), (sym_for_statement, STATE 925),
    (sym_while_statement, STATE 925), (sym_try_statement, STATE 925),
    (sym_with_statement, STATE 925), (sym_function_definition, STATE 925),
    (sym_global_statement, STATE 11814), (sym_nonlocal_statement, STATE 11814),
    (sym_exec_statement, STATE 11814), (sym_type_alias_statement, STATE 11814),
    (sym_parameterized_alias_statement, STATE 11814), (sym_class_definition, STATE 925),
    (sym_trait_definition, STATE 925), (sym_decorated_definition, STATE 925),
    (sym_decorator, STATE 3670), (sym_block, STATE 5191), (sym_pattern, STATE 8086),
    (sym_tuple_pattern, STATE 8101), (sym_list_pattern, STATE 8101),
    (sym_list_splat_pattern, STATE 6819), (sym_as_pattern, STATE 7969),
    (sym_expression, STATE 9883), (sym_primary_expression, STATE 7326),
    (sym_comptime_expression, STATE 7017), (sym_transfer_expression, STATE 7017),
    (sym_not_operator, STATE 7969), (sym_boolean_operator, STATE 7969),
    (sym_binary_operator, STATE 7017), (sym_unary_operator, STATE 7017),
    (sym_comparison_operator, STATE 7969), (sym_lambda, STATE 7969),
    (sym_assignment, STATE 12425), (sym_augmented_assignment, STATE 12425),
    (sym_pattern_list, STATE 8578), (sym_yield, STATE 12425), (sym_attribute, STATE 6836),
    (sym_subscript, STATE 6838), (sym_call, STATE 6845), (sym_mlir_type, STATE 7017),
    (sym_list, STATE 7017), (sym_set, STATE 7017), (sym_tuple, STATE 7017),
    (sym_dictionary, STATE 7017), (sym_struct_literal, STATE 7017),
    (sym_list_comprehension, STATE 7017), (sym_dictionary_comprehension, STATE 7017),
    (sym_set_comprehension, STATE 7017), (sym_generator_expression, STATE 7017),
    (sym_parenthesized_expression, STATE 7017), (sym_conditional_expression, STATE 7969),
    (sym_concatenated_string, STATE 7017), (sym_string, STATE 6751), (sym_await, STATE 7017),
    (aux_sym_module_repeat1, STATE 925), (aux_sym_decorated_definition_repeat1, STATE 3670),
    (sym_identifier, ACTIONS 9), (anon_sym_import, ACTIONS 11), (anon_sym_from, ACTIONS 13),
    (anon_sym_LPAREN, ACTIONS 15), (anon_sym_STAR, ACTIONS 17), (anon_sym_print, ACTIONS 19),
    (anon_sym_comptime, ACTIONS 99), (anon_sym_assert, ACTIONS 23),
    (anon_sym___comptime_assert, ACTIONS 25), (anon_sym_return, ACTIONS 27),
    (anon_sym_del, ACTIONS 29), (anon_sym_raise, ACTIONS 31), (anon_sym_pass, ACTIONS 33),
    (anon_sym_break, ACTIONS 35), (anon_sym_continue, ACTIONS 37),
    (anon_sym___extension, ACTIONS 101), (anon_sym___mlir_region, ACTIONS 103),
    (anon_sym_if, ACTIONS 105), (anon_sym_match, ACTIONS 107), (anon_sym_async, ACTIONS 109),
    (anon_sym_for, ACTIONS 111), (anon_sym_while, ACTIONS 113), (anon_sym_try, ACTIONS 115),
    (anon_sym_with, ACTIONS 117), (anon_sym_def, ACTIONS 119), (anon_sym_fn, ACTIONS 119),
    (anon_sym_LBRACK, ACTIONS 59), (anon_sym_LBRACE, ACTIONS 61), (anon_sym_global, ACTIONS 63),
    (anon_sym_nonlocal, ACTIONS 65), (anon_sym_exec, ACTIONS 67), (anon_sym_type, ACTIONS 69),
    (anon_sym_class, ACTIONS 121), (anon_sym_struct, ACTIONS 121), (anon_sym_mut, ACTIONS 73),
    (anon_sym_out, ACTIONS 73), (anon_sym_trait, ACTIONS 123), (anon_sym_AT, ACTIONS 77),
    (anon_sym_DASH, ACTIONS 79), (anon_sym_PLUS, ACTIONS 79), (anon_sym_ref, ACTIONS 81),
    (anon_sym_var, ACTIONS 81), (anon_sym_not, ACTIONS 83), (anon_sym_TILDE, ACTIONS 79),
    (anon_sym_lambda, ACTIONS 85), (anon_sym_yield, ACTIONS 87), (sym_ellipsis, ACTIONS 89),
    (anon_sym___mlir_type, ACTIONS 91), (sym_integer, ACTIONS 93), (sym_float, ACTIONS 89),
    (anon_sym_await, ACTIONS 95), (sym_true, ACTIONS 93), (sym_false, ACTIONS 93),
    (sym_none, ACTIONS 93), (sym_comment, ACTIONS 3), (sym_line_continuation, ACTIONS 3),
    (sym__dedent, ACTIONS 129), (sym_string_start, ACTIONS 97)]"

definition parse_table_210 :: "(nat \<times> nat) list" where "parse_table_210 = [
    (sym__statement, STATE 925), (sym__simple_statements, STATE 925),
    (sym_import_statement, STATE 11814), (sym_future_import_statement, STATE 11814),
    (sym_import_from_statement, STATE 11814), (sym_print_statement, STATE 11814),
    (sym_assert_statement, STATE 11814), (sym_comptime_assert_statement, STATE 11814),
    (sym_expression_statement, STATE 11814), (sym_tuple_expression, STATE 12425),
    (sym_named_expression, STATE 7969), (sym__named_expression_lhs, STATE 12752),
    (sym_return_statement, STATE 11814), (sym_delete_statement, STATE 11814),
    (sym_raise_statement, STATE 11814), (sym_pass_statement, STATE 11814),
    (sym_break_statement, STATE 11814), (sym_continue_statement, STATE 11814),
    (sym_extension_definition, STATE 925), (sym_mlir_region, STATE 925),
    (sym_comptime_statement, STATE 925), (sym_if_statement, STATE 925),
    (sym_match_statement, STATE 925), (sym_for_statement, STATE 925),
    (sym_while_statement, STATE 925), (sym_try_statement, STATE 925),
    (sym_with_statement, STATE 925), (sym_function_definition, STATE 925),
    (sym_global_statement, STATE 11814), (sym_nonlocal_statement, STATE 11814),
    (sym_exec_statement, STATE 11814), (sym_type_alias_statement, STATE 11814),
    (sym_parameterized_alias_statement, STATE 11814), (sym_class_definition, STATE 925),
    (sym_trait_definition, STATE 925), (sym_decorated_definition, STATE 925),
    (sym_decorator, STATE 3670), (sym_block, STATE 5194), (sym_pattern, STATE 8086),
    (sym_tuple_pattern, STATE 8101), (sym_list_pattern, STATE 8101),
    (sym_list_splat_pattern, STATE 6819), (sym_as_pattern, STATE 7969),
    (sym_expression, STATE 9883), (sym_primary_expression, STATE 7326),
    (sym_comptime_expression, STATE 7017), (sym_transfer_expression, STATE 7017),
    (sym_not_operator, STATE 7969), (sym_boolean_operator, STATE 7969),
    (sym_binary_operator, STATE 7017), (sym_unary_operator, STATE 7017),
    (sym_comparison_operator, STATE 7969), (sym_lambda, STATE 7969),
    (sym_assignment, STATE 12425), (sym_augmented_assignment, STATE 12425),
    (sym_pattern_list, STATE 8578), (sym_yield, STATE 12425), (sym_attribute, STATE 6836),
    (sym_subscript, STATE 6838), (sym_call, STATE 6845), (sym_mlir_type, STATE 7017),
    (sym_list, STATE 7017), (sym_set, STATE 7017), (sym_tuple, STATE 7017),
    (sym_dictionary, STATE 7017), (sym_struct_literal, STATE 7017),
    (sym_list_comprehension, STATE 7017), (sym_dictionary_comprehension, STATE 7017),
    (sym_set_comprehension, STATE 7017), (sym_generator_expression, STATE 7017),
    (sym_parenthesized_expression, STATE 7017), (sym_conditional_expression, STATE 7969),
    (sym_concatenated_string, STATE 7017), (sym_string, STATE 6751), (sym_await, STATE 7017),
    (aux_sym_module_repeat1, STATE 925), (aux_sym_decorated_definition_repeat1, STATE 3670),
    (sym_identifier, ACTIONS 9), (anon_sym_import, ACTIONS 11), (anon_sym_from, ACTIONS 13),
    (anon_sym_LPAREN, ACTIONS 15), (anon_sym_STAR, ACTIONS 17), (anon_sym_print, ACTIONS 19),
    (anon_sym_comptime, ACTIONS 99), (anon_sym_assert, ACTIONS 23),
    (anon_sym___comptime_assert, ACTIONS 25), (anon_sym_return, ACTIONS 27),
    (anon_sym_del, ACTIONS 29), (anon_sym_raise, ACTIONS 31), (anon_sym_pass, ACTIONS 33),
    (anon_sym_break, ACTIONS 35), (anon_sym_continue, ACTIONS 37),
    (anon_sym___extension, ACTIONS 101), (anon_sym___mlir_region, ACTIONS 103),
    (anon_sym_if, ACTIONS 105), (anon_sym_match, ACTIONS 107), (anon_sym_async, ACTIONS 109),
    (anon_sym_for, ACTIONS 111), (anon_sym_while, ACTIONS 113), (anon_sym_try, ACTIONS 115),
    (anon_sym_with, ACTIONS 117), (anon_sym_def, ACTIONS 119), (anon_sym_fn, ACTIONS 119),
    (anon_sym_LBRACK, ACTIONS 59), (anon_sym_LBRACE, ACTIONS 61), (anon_sym_global, ACTIONS 63),
    (anon_sym_nonlocal, ACTIONS 65), (anon_sym_exec, ACTIONS 67), (anon_sym_type, ACTIONS 69),
    (anon_sym_class, ACTIONS 121), (anon_sym_struct, ACTIONS 121), (anon_sym_mut, ACTIONS 73),
    (anon_sym_out, ACTIONS 73), (anon_sym_trait, ACTIONS 123), (anon_sym_AT, ACTIONS 77),
    (anon_sym_DASH, ACTIONS 79), (anon_sym_PLUS, ACTIONS 79), (anon_sym_ref, ACTIONS 81),
    (anon_sym_var, ACTIONS 81), (anon_sym_not, ACTIONS 83), (anon_sym_TILDE, ACTIONS 79),
    (anon_sym_lambda, ACTIONS 85), (anon_sym_yield, ACTIONS 87), (sym_ellipsis, ACTIONS 89),
    (anon_sym___mlir_type, ACTIONS 91), (sym_integer, ACTIONS 93), (sym_float, ACTIONS 89),
    (anon_sym_await, ACTIONS 95), (sym_true, ACTIONS 93), (sym_false, ACTIONS 93),
    (sym_none, ACTIONS 93), (sym_comment, ACTIONS 3), (sym_line_continuation, ACTIONS 3),
    (sym__dedent, ACTIONS 129), (sym_string_start, ACTIONS 97)]"

definition parse_table_211 :: "(nat \<times> nat) list" where "parse_table_211 = [
    (sym__statement, STATE 925), (sym__simple_statements, STATE 925),
    (sym_import_statement, STATE 11814), (sym_future_import_statement, STATE 11814),
    (sym_import_from_statement, STATE 11814), (sym_print_statement, STATE 11814),
    (sym_assert_statement, STATE 11814), (sym_comptime_assert_statement, STATE 11814),
    (sym_expression_statement, STATE 11814), (sym_tuple_expression, STATE 12425),
    (sym_named_expression, STATE 7969), (sym__named_expression_lhs, STATE 12752),
    (sym_return_statement, STATE 11814), (sym_delete_statement, STATE 11814),
    (sym_raise_statement, STATE 11814), (sym_pass_statement, STATE 11814),
    (sym_break_statement, STATE 11814), (sym_continue_statement, STATE 11814),
    (sym_extension_definition, STATE 925), (sym_mlir_region, STATE 925),
    (sym_comptime_statement, STATE 925), (sym_if_statement, STATE 925),
    (sym_match_statement, STATE 925), (sym_for_statement, STATE 925),
    (sym_while_statement, STATE 925), (sym_try_statement, STATE 925),
    (sym_with_statement, STATE 925), (sym_function_definition, STATE 925),
    (sym_global_statement, STATE 11814), (sym_nonlocal_statement, STATE 11814),
    (sym_exec_statement, STATE 11814), (sym_type_alias_statement, STATE 11814),
    (sym_parameterized_alias_statement, STATE 11814), (sym_class_definition, STATE 925),
    (sym_trait_definition, STATE 925), (sym_decorated_definition, STATE 925),
    (sym_decorator, STATE 3670), (sym_block, STATE 5207), (sym_pattern, STATE 8086),
    (sym_tuple_pattern, STATE 8101), (sym_list_pattern, STATE 8101),
    (sym_list_splat_pattern, STATE 6819), (sym_as_pattern, STATE 7969),
    (sym_expression, STATE 9883), (sym_primary_expression, STATE 7326),
    (sym_comptime_expression, STATE 7017), (sym_transfer_expression, STATE 7017),
    (sym_not_operator, STATE 7969), (sym_boolean_operator, STATE 7969),
    (sym_binary_operator, STATE 7017), (sym_unary_operator, STATE 7017),
    (sym_comparison_operator, STATE 7969), (sym_lambda, STATE 7969),
    (sym_assignment, STATE 12425), (sym_augmented_assignment, STATE 12425),
    (sym_pattern_list, STATE 8578), (sym_yield, STATE 12425), (sym_attribute, STATE 6836),
    (sym_subscript, STATE 6838), (sym_call, STATE 6845), (sym_mlir_type, STATE 7017),
    (sym_list, STATE 7017), (sym_set, STATE 7017), (sym_tuple, STATE 7017),
    (sym_dictionary, STATE 7017), (sym_struct_literal, STATE 7017),
    (sym_list_comprehension, STATE 7017), (sym_dictionary_comprehension, STATE 7017),
    (sym_set_comprehension, STATE 7017), (sym_generator_expression, STATE 7017),
    (sym_parenthesized_expression, STATE 7017), (sym_conditional_expression, STATE 7969),
    (sym_concatenated_string, STATE 7017), (sym_string, STATE 6751), (sym_await, STATE 7017),
    (aux_sym_module_repeat1, STATE 925), (aux_sym_decorated_definition_repeat1, STATE 3670),
    (sym_identifier, ACTIONS 9), (anon_sym_import, ACTIONS 11), (anon_sym_from, ACTIONS 13),
    (anon_sym_LPAREN, ACTIONS 15), (anon_sym_STAR, ACTIONS 17), (anon_sym_print, ACTIONS 19),
    (anon_sym_comptime, ACTIONS 99), (anon_sym_assert, ACTIONS 23),
    (anon_sym___comptime_assert, ACTIONS 25), (anon_sym_return, ACTIONS 27),
    (anon_sym_del, ACTIONS 29), (anon_sym_raise, ACTIONS 31), (anon_sym_pass, ACTIONS 33),
    (anon_sym_break, ACTIONS 35), (anon_sym_continue, ACTIONS 37),
    (anon_sym___extension, ACTIONS 101), (anon_sym___mlir_region, ACTIONS 103),
    (anon_sym_if, ACTIONS 105), (anon_sym_match, ACTIONS 107), (anon_sym_async, ACTIONS 109),
    (anon_sym_for, ACTIONS 111), (anon_sym_while, ACTIONS 113), (anon_sym_try, ACTIONS 115),
    (anon_sym_with, ACTIONS 117), (anon_sym_def, ACTIONS 119), (anon_sym_fn, ACTIONS 119),
    (anon_sym_LBRACK, ACTIONS 59), (anon_sym_LBRACE, ACTIONS 61), (anon_sym_global, ACTIONS 63),
    (anon_sym_nonlocal, ACTIONS 65), (anon_sym_exec, ACTIONS 67), (anon_sym_type, ACTIONS 69),
    (anon_sym_class, ACTIONS 121), (anon_sym_struct, ACTIONS 121), (anon_sym_mut, ACTIONS 73),
    (anon_sym_out, ACTIONS 73), (anon_sym_trait, ACTIONS 123), (anon_sym_AT, ACTIONS 77),
    (anon_sym_DASH, ACTIONS 79), (anon_sym_PLUS, ACTIONS 79), (anon_sym_ref, ACTIONS 81),
    (anon_sym_var, ACTIONS 81), (anon_sym_not, ACTIONS 83), (anon_sym_TILDE, ACTIONS 79),
    (anon_sym_lambda, ACTIONS 85), (anon_sym_yield, ACTIONS 87), (sym_ellipsis, ACTIONS 89),
    (anon_sym___mlir_type, ACTIONS 91), (sym_integer, ACTIONS 93), (sym_float, ACTIONS 89),
    (anon_sym_await, ACTIONS 95), (sym_true, ACTIONS 93), (sym_false, ACTIONS 93),
    (sym_none, ACTIONS 93), (sym_comment, ACTIONS 3), (sym_line_continuation, ACTIONS 3),
    (sym__dedent, ACTIONS 129), (sym_string_start, ACTIONS 97)]"

definition parse_table_212 :: "(nat \<times> nat) list" where "parse_table_212 = [
    (sym__statement, STATE 925), (sym__simple_statements, STATE 925),
    (sym_import_statement, STATE 11814), (sym_future_import_statement, STATE 11814),
    (sym_import_from_statement, STATE 11814), (sym_print_statement, STATE 11814),
    (sym_assert_statement, STATE 11814), (sym_comptime_assert_statement, STATE 11814),
    (sym_expression_statement, STATE 11814), (sym_tuple_expression, STATE 12425),
    (sym_named_expression, STATE 7969), (sym__named_expression_lhs, STATE 12752),
    (sym_return_statement, STATE 11814), (sym_delete_statement, STATE 11814),
    (sym_raise_statement, STATE 11814), (sym_pass_statement, STATE 11814),
    (sym_break_statement, STATE 11814), (sym_continue_statement, STATE 11814),
    (sym_extension_definition, STATE 925), (sym_mlir_region, STATE 925),
    (sym_comptime_statement, STATE 925), (sym_if_statement, STATE 925),
    (sym_match_statement, STATE 925), (sym_for_statement, STATE 925),
    (sym_while_statement, STATE 925), (sym_try_statement, STATE 925),
    (sym_with_statement, STATE 925), (sym_function_definition, STATE 925),
    (sym_global_statement, STATE 11814), (sym_nonlocal_statement, STATE 11814),
    (sym_exec_statement, STATE 11814), (sym_type_alias_statement, STATE 11814),
    (sym_parameterized_alias_statement, STATE 11814), (sym_class_definition, STATE 925),
    (sym_trait_definition, STATE 925), (sym_decorated_definition, STATE 925),
    (sym_decorator, STATE 3670), (sym_block, STATE 5210), (sym_pattern, STATE 8086),
    (sym_tuple_pattern, STATE 8101), (sym_list_pattern, STATE 8101),
    (sym_list_splat_pattern, STATE 6819), (sym_as_pattern, STATE 7969),
    (sym_expression, STATE 9883), (sym_primary_expression, STATE 7326),
    (sym_comptime_expression, STATE 7017), (sym_transfer_expression, STATE 7017),
    (sym_not_operator, STATE 7969), (sym_boolean_operator, STATE 7969),
    (sym_binary_operator, STATE 7017), (sym_unary_operator, STATE 7017),
    (sym_comparison_operator, STATE 7969), (sym_lambda, STATE 7969),
    (sym_assignment, STATE 12425), (sym_augmented_assignment, STATE 12425),
    (sym_pattern_list, STATE 8578), (sym_yield, STATE 12425), (sym_attribute, STATE 6836),
    (sym_subscript, STATE 6838), (sym_call, STATE 6845), (sym_mlir_type, STATE 7017),
    (sym_list, STATE 7017), (sym_set, STATE 7017), (sym_tuple, STATE 7017),
    (sym_dictionary, STATE 7017), (sym_struct_literal, STATE 7017),
    (sym_list_comprehension, STATE 7017), (sym_dictionary_comprehension, STATE 7017),
    (sym_set_comprehension, STATE 7017), (sym_generator_expression, STATE 7017),
    (sym_parenthesized_expression, STATE 7017), (sym_conditional_expression, STATE 7969),
    (sym_concatenated_string, STATE 7017), (sym_string, STATE 6751), (sym_await, STATE 7017),
    (aux_sym_module_repeat1, STATE 925), (aux_sym_decorated_definition_repeat1, STATE 3670),
    (sym_identifier, ACTIONS 9), (anon_sym_import, ACTIONS 11), (anon_sym_from, ACTIONS 13),
    (anon_sym_LPAREN, ACTIONS 15), (anon_sym_STAR, ACTIONS 17), (anon_sym_print, ACTIONS 19),
    (anon_sym_comptime, ACTIONS 99), (anon_sym_assert, ACTIONS 23),
    (anon_sym___comptime_assert, ACTIONS 25), (anon_sym_return, ACTIONS 27),
    (anon_sym_del, ACTIONS 29), (anon_sym_raise, ACTIONS 31), (anon_sym_pass, ACTIONS 33),
    (anon_sym_break, ACTIONS 35), (anon_sym_continue, ACTIONS 37),
    (anon_sym___extension, ACTIONS 101), (anon_sym___mlir_region, ACTIONS 103),
    (anon_sym_if, ACTIONS 105), (anon_sym_match, ACTIONS 107), (anon_sym_async, ACTIONS 109),
    (anon_sym_for, ACTIONS 111), (anon_sym_while, ACTIONS 113), (anon_sym_try, ACTIONS 115),
    (anon_sym_with, ACTIONS 117), (anon_sym_def, ACTIONS 119), (anon_sym_fn, ACTIONS 119),
    (anon_sym_LBRACK, ACTIONS 59), (anon_sym_LBRACE, ACTIONS 61), (anon_sym_global, ACTIONS 63),
    (anon_sym_nonlocal, ACTIONS 65), (anon_sym_exec, ACTIONS 67), (anon_sym_type, ACTIONS 69),
    (anon_sym_class, ACTIONS 121), (anon_sym_struct, ACTIONS 121), (anon_sym_mut, ACTIONS 73),
    (anon_sym_out, ACTIONS 73), (anon_sym_trait, ACTIONS 123), (anon_sym_AT, ACTIONS 77),
    (anon_sym_DASH, ACTIONS 79), (anon_sym_PLUS, ACTIONS 79), (anon_sym_ref, ACTIONS 81),
    (anon_sym_var, ACTIONS 81), (anon_sym_not, ACTIONS 83), (anon_sym_TILDE, ACTIONS 79),
    (anon_sym_lambda, ACTIONS 85), (anon_sym_yield, ACTIONS 87), (sym_ellipsis, ACTIONS 89),
    (anon_sym___mlir_type, ACTIONS 91), (sym_integer, ACTIONS 93), (sym_float, ACTIONS 89),
    (anon_sym_await, ACTIONS 95), (sym_true, ACTIONS 93), (sym_false, ACTIONS 93),
    (sym_none, ACTIONS 93), (sym_comment, ACTIONS 3), (sym_line_continuation, ACTIONS 3),
    (sym__dedent, ACTIONS 129), (sym_string_start, ACTIONS 97)]"

definition parse_table_213 :: "(nat \<times> nat) list" where "parse_table_213 = [
    (sym__statement, STATE 925), (sym__simple_statements, STATE 925),
    (sym_import_statement, STATE 11814), (sym_future_import_statement, STATE 11814),
    (sym_import_from_statement, STATE 11814), (sym_print_statement, STATE 11814),
    (sym_assert_statement, STATE 11814), (sym_comptime_assert_statement, STATE 11814),
    (sym_expression_statement, STATE 11814), (sym_tuple_expression, STATE 12425),
    (sym_named_expression, STATE 7969), (sym__named_expression_lhs, STATE 12752),
    (sym_return_statement, STATE 11814), (sym_delete_statement, STATE 11814),
    (sym_raise_statement, STATE 11814), (sym_pass_statement, STATE 11814),
    (sym_break_statement, STATE 11814), (sym_continue_statement, STATE 11814),
    (sym_extension_definition, STATE 925), (sym_mlir_region, STATE 925),
    (sym_comptime_statement, STATE 925), (sym_if_statement, STATE 925),
    (sym_match_statement, STATE 925), (sym_for_statement, STATE 925),
    (sym_while_statement, STATE 925), (sym_try_statement, STATE 925),
    (sym_with_statement, STATE 925), (sym_function_definition, STATE 925),
    (sym_global_statement, STATE 11814), (sym_nonlocal_statement, STATE 11814),
    (sym_exec_statement, STATE 11814), (sym_type_alias_statement, STATE 11814),
    (sym_parameterized_alias_statement, STATE 11814), (sym_class_definition, STATE 925),
    (sym_trait_definition, STATE 925), (sym_decorated_definition, STATE 925),
    (sym_decorator, STATE 3670), (sym_block, STATE 5224), (sym_pattern, STATE 8086),
    (sym_tuple_pattern, STATE 8101), (sym_list_pattern, STATE 8101),
    (sym_list_splat_pattern, STATE 6819), (sym_as_pattern, STATE 7969),
    (sym_expression, STATE 9883), (sym_primary_expression, STATE 7326),
    (sym_comptime_expression, STATE 7017), (sym_transfer_expression, STATE 7017),
    (sym_not_operator, STATE 7969), (sym_boolean_operator, STATE 7969),
    (sym_binary_operator, STATE 7017), (sym_unary_operator, STATE 7017),
    (sym_comparison_operator, STATE 7969), (sym_lambda, STATE 7969),
    (sym_assignment, STATE 12425), (sym_augmented_assignment, STATE 12425),
    (sym_pattern_list, STATE 8578), (sym_yield, STATE 12425), (sym_attribute, STATE 6836),
    (sym_subscript, STATE 6838), (sym_call, STATE 6845), (sym_mlir_type, STATE 7017),
    (sym_list, STATE 7017), (sym_set, STATE 7017), (sym_tuple, STATE 7017),
    (sym_dictionary, STATE 7017), (sym_struct_literal, STATE 7017),
    (sym_list_comprehension, STATE 7017), (sym_dictionary_comprehension, STATE 7017),
    (sym_set_comprehension, STATE 7017), (sym_generator_expression, STATE 7017),
    (sym_parenthesized_expression, STATE 7017), (sym_conditional_expression, STATE 7969),
    (sym_concatenated_string, STATE 7017), (sym_string, STATE 6751), (sym_await, STATE 7017),
    (aux_sym_module_repeat1, STATE 925), (aux_sym_decorated_definition_repeat1, STATE 3670),
    (sym_identifier, ACTIONS 9), (anon_sym_import, ACTIONS 11), (anon_sym_from, ACTIONS 13),
    (anon_sym_LPAREN, ACTIONS 15), (anon_sym_STAR, ACTIONS 17), (anon_sym_print, ACTIONS 19),
    (anon_sym_comptime, ACTIONS 99), (anon_sym_assert, ACTIONS 23),
    (anon_sym___comptime_assert, ACTIONS 25), (anon_sym_return, ACTIONS 27),
    (anon_sym_del, ACTIONS 29), (anon_sym_raise, ACTIONS 31), (anon_sym_pass, ACTIONS 33),
    (anon_sym_break, ACTIONS 35), (anon_sym_continue, ACTIONS 37),
    (anon_sym___extension, ACTIONS 101), (anon_sym___mlir_region, ACTIONS 103),
    (anon_sym_if, ACTIONS 105), (anon_sym_match, ACTIONS 107), (anon_sym_async, ACTIONS 109),
    (anon_sym_for, ACTIONS 111), (anon_sym_while, ACTIONS 113), (anon_sym_try, ACTIONS 115),
    (anon_sym_with, ACTIONS 117), (anon_sym_def, ACTIONS 119), (anon_sym_fn, ACTIONS 119),
    (anon_sym_LBRACK, ACTIONS 59), (anon_sym_LBRACE, ACTIONS 61), (anon_sym_global, ACTIONS 63),
    (anon_sym_nonlocal, ACTIONS 65), (anon_sym_exec, ACTIONS 67), (anon_sym_type, ACTIONS 69),
    (anon_sym_class, ACTIONS 121), (anon_sym_struct, ACTIONS 121), (anon_sym_mut, ACTIONS 73),
    (anon_sym_out, ACTIONS 73), (anon_sym_trait, ACTIONS 123), (anon_sym_AT, ACTIONS 77),
    (anon_sym_DASH, ACTIONS 79), (anon_sym_PLUS, ACTIONS 79), (anon_sym_ref, ACTIONS 81),
    (anon_sym_var, ACTIONS 81), (anon_sym_not, ACTIONS 83), (anon_sym_TILDE, ACTIONS 79),
    (anon_sym_lambda, ACTIONS 85), (anon_sym_yield, ACTIONS 87), (sym_ellipsis, ACTIONS 89),
    (anon_sym___mlir_type, ACTIONS 91), (sym_integer, ACTIONS 93), (sym_float, ACTIONS 89),
    (anon_sym_await, ACTIONS 95), (sym_true, ACTIONS 93), (sym_false, ACTIONS 93),
    (sym_none, ACTIONS 93), (sym_comment, ACTIONS 3), (sym_line_continuation, ACTIONS 3),
    (sym__dedent, ACTIONS 129), (sym_string_start, ACTIONS 97)]"

definition parse_table_214 :: "(nat \<times> nat) list" where "parse_table_214 = [
    (sym__statement, STATE 925), (sym__simple_statements, STATE 925),
    (sym_import_statement, STATE 11814), (sym_future_import_statement, STATE 11814),
    (sym_import_from_statement, STATE 11814), (sym_print_statement, STATE 11814),
    (sym_assert_statement, STATE 11814), (sym_comptime_assert_statement, STATE 11814),
    (sym_expression_statement, STATE 11814), (sym_tuple_expression, STATE 12425),
    (sym_named_expression, STATE 7969), (sym__named_expression_lhs, STATE 12752),
    (sym_return_statement, STATE 11814), (sym_delete_statement, STATE 11814),
    (sym_raise_statement, STATE 11814), (sym_pass_statement, STATE 11814),
    (sym_break_statement, STATE 11814), (sym_continue_statement, STATE 11814),
    (sym_extension_definition, STATE 925), (sym_mlir_region, STATE 925),
    (sym_comptime_statement, STATE 925), (sym_if_statement, STATE 925),
    (sym_match_statement, STATE 925), (sym_for_statement, STATE 925),
    (sym_while_statement, STATE 925), (sym_try_statement, STATE 925),
    (sym_with_statement, STATE 925), (sym_function_definition, STATE 925),
    (sym_global_statement, STATE 11814), (sym_nonlocal_statement, STATE 11814),
    (sym_exec_statement, STATE 11814), (sym_type_alias_statement, STATE 11814),
    (sym_parameterized_alias_statement, STATE 11814), (sym_class_definition, STATE 925),
    (sym_trait_definition, STATE 925), (sym_decorated_definition, STATE 925),
    (sym_decorator, STATE 3670), (sym_block, STATE 5225), (sym_pattern, STATE 8086),
    (sym_tuple_pattern, STATE 8101), (sym_list_pattern, STATE 8101),
    (sym_list_splat_pattern, STATE 6819), (sym_as_pattern, STATE 7969),
    (sym_expression, STATE 9883), (sym_primary_expression, STATE 7326),
    (sym_comptime_expression, STATE 7017), (sym_transfer_expression, STATE 7017),
    (sym_not_operator, STATE 7969), (sym_boolean_operator, STATE 7969),
    (sym_binary_operator, STATE 7017), (sym_unary_operator, STATE 7017),
    (sym_comparison_operator, STATE 7969), (sym_lambda, STATE 7969),
    (sym_assignment, STATE 12425), (sym_augmented_assignment, STATE 12425),
    (sym_pattern_list, STATE 8578), (sym_yield, STATE 12425), (sym_attribute, STATE 6836),
    (sym_subscript, STATE 6838), (sym_call, STATE 6845), (sym_mlir_type, STATE 7017),
    (sym_list, STATE 7017), (sym_set, STATE 7017), (sym_tuple, STATE 7017),
    (sym_dictionary, STATE 7017), (sym_struct_literal, STATE 7017),
    (sym_list_comprehension, STATE 7017), (sym_dictionary_comprehension, STATE 7017),
    (sym_set_comprehension, STATE 7017), (sym_generator_expression, STATE 7017),
    (sym_parenthesized_expression, STATE 7017), (sym_conditional_expression, STATE 7969),
    (sym_concatenated_string, STATE 7017), (sym_string, STATE 6751), (sym_await, STATE 7017),
    (aux_sym_module_repeat1, STATE 925), (aux_sym_decorated_definition_repeat1, STATE 3670),
    (sym_identifier, ACTIONS 9), (anon_sym_import, ACTIONS 11), (anon_sym_from, ACTIONS 13),
    (anon_sym_LPAREN, ACTIONS 15), (anon_sym_STAR, ACTIONS 17), (anon_sym_print, ACTIONS 19),
    (anon_sym_comptime, ACTIONS 99), (anon_sym_assert, ACTIONS 23),
    (anon_sym___comptime_assert, ACTIONS 25), (anon_sym_return, ACTIONS 27),
    (anon_sym_del, ACTIONS 29), (anon_sym_raise, ACTIONS 31), (anon_sym_pass, ACTIONS 33),
    (anon_sym_break, ACTIONS 35), (anon_sym_continue, ACTIONS 37),
    (anon_sym___extension, ACTIONS 101), (anon_sym___mlir_region, ACTIONS 103),
    (anon_sym_if, ACTIONS 105), (anon_sym_match, ACTIONS 107), (anon_sym_async, ACTIONS 109),
    (anon_sym_for, ACTIONS 111), (anon_sym_while, ACTIONS 113), (anon_sym_try, ACTIONS 115),
    (anon_sym_with, ACTIONS 117), (anon_sym_def, ACTIONS 119), (anon_sym_fn, ACTIONS 119),
    (anon_sym_LBRACK, ACTIONS 59), (anon_sym_LBRACE, ACTIONS 61), (anon_sym_global, ACTIONS 63),
    (anon_sym_nonlocal, ACTIONS 65), (anon_sym_exec, ACTIONS 67), (anon_sym_type, ACTIONS 69),
    (anon_sym_class, ACTIONS 121), (anon_sym_struct, ACTIONS 121), (anon_sym_mut, ACTIONS 73),
    (anon_sym_out, ACTIONS 73), (anon_sym_trait, ACTIONS 123), (anon_sym_AT, ACTIONS 77),
    (anon_sym_DASH, ACTIONS 79), (anon_sym_PLUS, ACTIONS 79), (anon_sym_ref, ACTIONS 81),
    (anon_sym_var, ACTIONS 81), (anon_sym_not, ACTIONS 83), (anon_sym_TILDE, ACTIONS 79),
    (anon_sym_lambda, ACTIONS 85), (anon_sym_yield, ACTIONS 87), (sym_ellipsis, ACTIONS 89),
    (anon_sym___mlir_type, ACTIONS 91), (sym_integer, ACTIONS 93), (sym_float, ACTIONS 89),
    (anon_sym_await, ACTIONS 95), (sym_true, ACTIONS 93), (sym_false, ACTIONS 93),
    (sym_none, ACTIONS 93), (sym_comment, ACTIONS 3), (sym_line_continuation, ACTIONS 3),
    (sym__dedent, ACTIONS 129), (sym_string_start, ACTIONS 97)]"

definition parse_table_215 :: "(nat \<times> nat) list" where "parse_table_215 = [
    (sym__statement, STATE 925), (sym__simple_statements, STATE 925),
    (sym_import_statement, STATE 11814), (sym_future_import_statement, STATE 11814),
    (sym_import_from_statement, STATE 11814), (sym_print_statement, STATE 11814),
    (sym_assert_statement, STATE 11814), (sym_comptime_assert_statement, STATE 11814),
    (sym_expression_statement, STATE 11814), (sym_tuple_expression, STATE 12425),
    (sym_named_expression, STATE 7969), (sym__named_expression_lhs, STATE 12752),
    (sym_return_statement, STATE 11814), (sym_delete_statement, STATE 11814),
    (sym_raise_statement, STATE 11814), (sym_pass_statement, STATE 11814),
    (sym_break_statement, STATE 11814), (sym_continue_statement, STATE 11814),
    (sym_extension_definition, STATE 925), (sym_mlir_region, STATE 925),
    (sym_comptime_statement, STATE 925), (sym_if_statement, STATE 925),
    (sym_match_statement, STATE 925), (sym_for_statement, STATE 925),
    (sym_while_statement, STATE 925), (sym_try_statement, STATE 925),
    (sym_with_statement, STATE 925), (sym_function_definition, STATE 925),
    (sym_global_statement, STATE 11814), (sym_nonlocal_statement, STATE 11814),
    (sym_exec_statement, STATE 11814), (sym_type_alias_statement, STATE 11814),
    (sym_parameterized_alias_statement, STATE 11814), (sym_class_definition, STATE 925),
    (sym_trait_definition, STATE 925), (sym_decorated_definition, STATE 925),
    (sym_decorator, STATE 3670), (sym_block, STATE 5226), (sym_pattern, STATE 8086),
    (sym_tuple_pattern, STATE 8101), (sym_list_pattern, STATE 8101),
    (sym_list_splat_pattern, STATE 6819), (sym_as_pattern, STATE 7969),
    (sym_expression, STATE 9883), (sym_primary_expression, STATE 7326),
    (sym_comptime_expression, STATE 7017), (sym_transfer_expression, STATE 7017),
    (sym_not_operator, STATE 7969), (sym_boolean_operator, STATE 7969),
    (sym_binary_operator, STATE 7017), (sym_unary_operator, STATE 7017),
    (sym_comparison_operator, STATE 7969), (sym_lambda, STATE 7969),
    (sym_assignment, STATE 12425), (sym_augmented_assignment, STATE 12425),
    (sym_pattern_list, STATE 8578), (sym_yield, STATE 12425), (sym_attribute, STATE 6836),
    (sym_subscript, STATE 6838), (sym_call, STATE 6845), (sym_mlir_type, STATE 7017),
    (sym_list, STATE 7017), (sym_set, STATE 7017), (sym_tuple, STATE 7017),
    (sym_dictionary, STATE 7017), (sym_struct_literal, STATE 7017),
    (sym_list_comprehension, STATE 7017), (sym_dictionary_comprehension, STATE 7017),
    (sym_set_comprehension, STATE 7017), (sym_generator_expression, STATE 7017),
    (sym_parenthesized_expression, STATE 7017), (sym_conditional_expression, STATE 7969),
    (sym_concatenated_string, STATE 7017), (sym_string, STATE 6751), (sym_await, STATE 7017),
    (aux_sym_module_repeat1, STATE 925), (aux_sym_decorated_definition_repeat1, STATE 3670),
    (sym_identifier, ACTIONS 9), (anon_sym_import, ACTIONS 11), (anon_sym_from, ACTIONS 13),
    (anon_sym_LPAREN, ACTIONS 15), (anon_sym_STAR, ACTIONS 17), (anon_sym_print, ACTIONS 19),
    (anon_sym_comptime, ACTIONS 99), (anon_sym_assert, ACTIONS 23),
    (anon_sym___comptime_assert, ACTIONS 25), (anon_sym_return, ACTIONS 27),
    (anon_sym_del, ACTIONS 29), (anon_sym_raise, ACTIONS 31), (anon_sym_pass, ACTIONS 33),
    (anon_sym_break, ACTIONS 35), (anon_sym_continue, ACTIONS 37),
    (anon_sym___extension, ACTIONS 101), (anon_sym___mlir_region, ACTIONS 103),
    (anon_sym_if, ACTIONS 105), (anon_sym_match, ACTIONS 107), (anon_sym_async, ACTIONS 109),
    (anon_sym_for, ACTIONS 111), (anon_sym_while, ACTIONS 113), (anon_sym_try, ACTIONS 115),
    (anon_sym_with, ACTIONS 117), (anon_sym_def, ACTIONS 119), (anon_sym_fn, ACTIONS 119),
    (anon_sym_LBRACK, ACTIONS 59), (anon_sym_LBRACE, ACTIONS 61), (anon_sym_global, ACTIONS 63),
    (anon_sym_nonlocal, ACTIONS 65), (anon_sym_exec, ACTIONS 67), (anon_sym_type, ACTIONS 69),
    (anon_sym_class, ACTIONS 121), (anon_sym_struct, ACTIONS 121), (anon_sym_mut, ACTIONS 73),
    (anon_sym_out, ACTIONS 73), (anon_sym_trait, ACTIONS 123), (anon_sym_AT, ACTIONS 77),
    (anon_sym_DASH, ACTIONS 79), (anon_sym_PLUS, ACTIONS 79), (anon_sym_ref, ACTIONS 81),
    (anon_sym_var, ACTIONS 81), (anon_sym_not, ACTIONS 83), (anon_sym_TILDE, ACTIONS 79),
    (anon_sym_lambda, ACTIONS 85), (anon_sym_yield, ACTIONS 87), (sym_ellipsis, ACTIONS 89),
    (anon_sym___mlir_type, ACTIONS 91), (sym_integer, ACTIONS 93), (sym_float, ACTIONS 89),
    (anon_sym_await, ACTIONS 95), (sym_true, ACTIONS 93), (sym_false, ACTIONS 93),
    (sym_none, ACTIONS 93), (sym_comment, ACTIONS 3), (sym_line_continuation, ACTIONS 3),
    (sym__dedent, ACTIONS 129), (sym_string_start, ACTIONS 97)]"

definition parse_table_216 :: "(nat \<times> nat) list" where "parse_table_216 = [
    (sym__statement, STATE 925), (sym__simple_statements, STATE 925),
    (sym_import_statement, STATE 11814), (sym_future_import_statement, STATE 11814),
    (sym_import_from_statement, STATE 11814), (sym_print_statement, STATE 11814),
    (sym_assert_statement, STATE 11814), (sym_comptime_assert_statement, STATE 11814),
    (sym_expression_statement, STATE 11814), (sym_tuple_expression, STATE 12425),
    (sym_named_expression, STATE 7969), (sym__named_expression_lhs, STATE 12752),
    (sym_return_statement, STATE 11814), (sym_delete_statement, STATE 11814),
    (sym_raise_statement, STATE 11814), (sym_pass_statement, STATE 11814),
    (sym_break_statement, STATE 11814), (sym_continue_statement, STATE 11814),
    (sym_extension_definition, STATE 925), (sym_mlir_region, STATE 925),
    (sym_comptime_statement, STATE 925), (sym_if_statement, STATE 925),
    (sym_match_statement, STATE 925), (sym_for_statement, STATE 925),
    (sym_while_statement, STATE 925), (sym_try_statement, STATE 925),
    (sym_with_statement, STATE 925), (sym_function_definition, STATE 925),
    (sym_global_statement, STATE 11814), (sym_nonlocal_statement, STATE 11814),
    (sym_exec_statement, STATE 11814), (sym_type_alias_statement, STATE 11814),
    (sym_parameterized_alias_statement, STATE 11814), (sym_class_definition, STATE 925),
    (sym_trait_definition, STATE 925), (sym_decorated_definition, STATE 925),
    (sym_decorator, STATE 3670), (sym_block, STATE 5227), (sym_pattern, STATE 8086),
    (sym_tuple_pattern, STATE 8101), (sym_list_pattern, STATE 8101),
    (sym_list_splat_pattern, STATE 6819), (sym_as_pattern, STATE 7969),
    (sym_expression, STATE 9883), (sym_primary_expression, STATE 7326),
    (sym_comptime_expression, STATE 7017), (sym_transfer_expression, STATE 7017),
    (sym_not_operator, STATE 7969), (sym_boolean_operator, STATE 7969),
    (sym_binary_operator, STATE 7017), (sym_unary_operator, STATE 7017),
    (sym_comparison_operator, STATE 7969), (sym_lambda, STATE 7969),
    (sym_assignment, STATE 12425), (sym_augmented_assignment, STATE 12425),
    (sym_pattern_list, STATE 8578), (sym_yield, STATE 12425), (sym_attribute, STATE 6836),
    (sym_subscript, STATE 6838), (sym_call, STATE 6845), (sym_mlir_type, STATE 7017),
    (sym_list, STATE 7017), (sym_set, STATE 7017), (sym_tuple, STATE 7017),
    (sym_dictionary, STATE 7017), (sym_struct_literal, STATE 7017),
    (sym_list_comprehension, STATE 7017), (sym_dictionary_comprehension, STATE 7017),
    (sym_set_comprehension, STATE 7017), (sym_generator_expression, STATE 7017),
    (sym_parenthesized_expression, STATE 7017), (sym_conditional_expression, STATE 7969),
    (sym_concatenated_string, STATE 7017), (sym_string, STATE 6751), (sym_await, STATE 7017),
    (aux_sym_module_repeat1, STATE 925), (aux_sym_decorated_definition_repeat1, STATE 3670),
    (sym_identifier, ACTIONS 9), (anon_sym_import, ACTIONS 11), (anon_sym_from, ACTIONS 13),
    (anon_sym_LPAREN, ACTIONS 15), (anon_sym_STAR, ACTIONS 17), (anon_sym_print, ACTIONS 19),
    (anon_sym_comptime, ACTIONS 99), (anon_sym_assert, ACTIONS 23),
    (anon_sym___comptime_assert, ACTIONS 25), (anon_sym_return, ACTIONS 27),
    (anon_sym_del, ACTIONS 29), (anon_sym_raise, ACTIONS 31), (anon_sym_pass, ACTIONS 33),
    (anon_sym_break, ACTIONS 35), (anon_sym_continue, ACTIONS 37),
    (anon_sym___extension, ACTIONS 101), (anon_sym___mlir_region, ACTIONS 103),
    (anon_sym_if, ACTIONS 105), (anon_sym_match, ACTIONS 107), (anon_sym_async, ACTIONS 109),
    (anon_sym_for, ACTIONS 111), (anon_sym_while, ACTIONS 113), (anon_sym_try, ACTIONS 115),
    (anon_sym_with, ACTIONS 117), (anon_sym_def, ACTIONS 119), (anon_sym_fn, ACTIONS 119),
    (anon_sym_LBRACK, ACTIONS 59), (anon_sym_LBRACE, ACTIONS 61), (anon_sym_global, ACTIONS 63),
    (anon_sym_nonlocal, ACTIONS 65), (anon_sym_exec, ACTIONS 67), (anon_sym_type, ACTIONS 69),
    (anon_sym_class, ACTIONS 121), (anon_sym_struct, ACTIONS 121), (anon_sym_mut, ACTIONS 73),
    (anon_sym_out, ACTIONS 73), (anon_sym_trait, ACTIONS 123), (anon_sym_AT, ACTIONS 77),
    (anon_sym_DASH, ACTIONS 79), (anon_sym_PLUS, ACTIONS 79), (anon_sym_ref, ACTIONS 81),
    (anon_sym_var, ACTIONS 81), (anon_sym_not, ACTIONS 83), (anon_sym_TILDE, ACTIONS 79),
    (anon_sym_lambda, ACTIONS 85), (anon_sym_yield, ACTIONS 87), (sym_ellipsis, ACTIONS 89),
    (anon_sym___mlir_type, ACTIONS 91), (sym_integer, ACTIONS 93), (sym_float, ACTIONS 89),
    (anon_sym_await, ACTIONS 95), (sym_true, ACTIONS 93), (sym_false, ACTIONS 93),
    (sym_none, ACTIONS 93), (sym_comment, ACTIONS 3), (sym_line_continuation, ACTIONS 3),
    (sym__dedent, ACTIONS 129), (sym_string_start, ACTIONS 97)]"

definition parse_table_217 :: "(nat \<times> nat) list" where "parse_table_217 = [
    (sym__statement, STATE 925), (sym__simple_statements, STATE 925),
    (sym_import_statement, STATE 11814), (sym_future_import_statement, STATE 11814),
    (sym_import_from_statement, STATE 11814), (sym_print_statement, STATE 11814),
    (sym_assert_statement, STATE 11814), (sym_comptime_assert_statement, STATE 11814),
    (sym_expression_statement, STATE 11814), (sym_tuple_expression, STATE 12425),
    (sym_named_expression, STATE 7969), (sym__named_expression_lhs, STATE 12752),
    (sym_return_statement, STATE 11814), (sym_delete_statement, STATE 11814),
    (sym_raise_statement, STATE 11814), (sym_pass_statement, STATE 11814),
    (sym_break_statement, STATE 11814), (sym_continue_statement, STATE 11814),
    (sym_extension_definition, STATE 925), (sym_mlir_region, STATE 925),
    (sym_comptime_statement, STATE 925), (sym_if_statement, STATE 925),
    (sym_match_statement, STATE 925), (sym_for_statement, STATE 925),
    (sym_while_statement, STATE 925), (sym_try_statement, STATE 925),
    (sym_with_statement, STATE 925), (sym_function_definition, STATE 925),
    (sym_global_statement, STATE 11814), (sym_nonlocal_statement, STATE 11814),
    (sym_exec_statement, STATE 11814), (sym_type_alias_statement, STATE 11814),
    (sym_parameterized_alias_statement, STATE 11814), (sym_class_definition, STATE 925),
    (sym_trait_definition, STATE 925), (sym_decorated_definition, STATE 925),
    (sym_decorator, STATE 3670), (sym_block, STATE 5228), (sym_pattern, STATE 8086),
    (sym_tuple_pattern, STATE 8101), (sym_list_pattern, STATE 8101),
    (sym_list_splat_pattern, STATE 6819), (sym_as_pattern, STATE 7969),
    (sym_expression, STATE 9883), (sym_primary_expression, STATE 7326),
    (sym_comptime_expression, STATE 7017), (sym_transfer_expression, STATE 7017),
    (sym_not_operator, STATE 7969), (sym_boolean_operator, STATE 7969),
    (sym_binary_operator, STATE 7017), (sym_unary_operator, STATE 7017),
    (sym_comparison_operator, STATE 7969), (sym_lambda, STATE 7969),
    (sym_assignment, STATE 12425), (sym_augmented_assignment, STATE 12425),
    (sym_pattern_list, STATE 8578), (sym_yield, STATE 12425), (sym_attribute, STATE 6836),
    (sym_subscript, STATE 6838), (sym_call, STATE 6845), (sym_mlir_type, STATE 7017),
    (sym_list, STATE 7017), (sym_set, STATE 7017), (sym_tuple, STATE 7017),
    (sym_dictionary, STATE 7017), (sym_struct_literal, STATE 7017),
    (sym_list_comprehension, STATE 7017), (sym_dictionary_comprehension, STATE 7017),
    (sym_set_comprehension, STATE 7017), (sym_generator_expression, STATE 7017),
    (sym_parenthesized_expression, STATE 7017), (sym_conditional_expression, STATE 7969),
    (sym_concatenated_string, STATE 7017), (sym_string, STATE 6751), (sym_await, STATE 7017),
    (aux_sym_module_repeat1, STATE 925), (aux_sym_decorated_definition_repeat1, STATE 3670),
    (sym_identifier, ACTIONS 9), (anon_sym_import, ACTIONS 11), (anon_sym_from, ACTIONS 13),
    (anon_sym_LPAREN, ACTIONS 15), (anon_sym_STAR, ACTIONS 17), (anon_sym_print, ACTIONS 19),
    (anon_sym_comptime, ACTIONS 99), (anon_sym_assert, ACTIONS 23),
    (anon_sym___comptime_assert, ACTIONS 25), (anon_sym_return, ACTIONS 27),
    (anon_sym_del, ACTIONS 29), (anon_sym_raise, ACTIONS 31), (anon_sym_pass, ACTIONS 33),
    (anon_sym_break, ACTIONS 35), (anon_sym_continue, ACTIONS 37),
    (anon_sym___extension, ACTIONS 101), (anon_sym___mlir_region, ACTIONS 103),
    (anon_sym_if, ACTIONS 105), (anon_sym_match, ACTIONS 107), (anon_sym_async, ACTIONS 109),
    (anon_sym_for, ACTIONS 111), (anon_sym_while, ACTIONS 113), (anon_sym_try, ACTIONS 115),
    (anon_sym_with, ACTIONS 117), (anon_sym_def, ACTIONS 119), (anon_sym_fn, ACTIONS 119),
    (anon_sym_LBRACK, ACTIONS 59), (anon_sym_LBRACE, ACTIONS 61), (anon_sym_global, ACTIONS 63),
    (anon_sym_nonlocal, ACTIONS 65), (anon_sym_exec, ACTIONS 67), (anon_sym_type, ACTIONS 69),
    (anon_sym_class, ACTIONS 121), (anon_sym_struct, ACTIONS 121), (anon_sym_mut, ACTIONS 73),
    (anon_sym_out, ACTIONS 73), (anon_sym_trait, ACTIONS 123), (anon_sym_AT, ACTIONS 77),
    (anon_sym_DASH, ACTIONS 79), (anon_sym_PLUS, ACTIONS 79), (anon_sym_ref, ACTIONS 81),
    (anon_sym_var, ACTIONS 81), (anon_sym_not, ACTIONS 83), (anon_sym_TILDE, ACTIONS 79),
    (anon_sym_lambda, ACTIONS 85), (anon_sym_yield, ACTIONS 87), (sym_ellipsis, ACTIONS 89),
    (anon_sym___mlir_type, ACTIONS 91), (sym_integer, ACTIONS 93), (sym_float, ACTIONS 89),
    (anon_sym_await, ACTIONS 95), (sym_true, ACTIONS 93), (sym_false, ACTIONS 93),
    (sym_none, ACTIONS 93), (sym_comment, ACTIONS 3), (sym_line_continuation, ACTIONS 3),
    (sym__dedent, ACTIONS 129), (sym_string_start, ACTIONS 97)]"

definition parse_table_218 :: "(nat \<times> nat) list" where "parse_table_218 = [
    (sym__statement, STATE 925), (sym__simple_statements, STATE 925),
    (sym_import_statement, STATE 11814), (sym_future_import_statement, STATE 11814),
    (sym_import_from_statement, STATE 11814), (sym_print_statement, STATE 11814),
    (sym_assert_statement, STATE 11814), (sym_comptime_assert_statement, STATE 11814),
    (sym_expression_statement, STATE 11814), (sym_tuple_expression, STATE 12425),
    (sym_named_expression, STATE 7969), (sym__named_expression_lhs, STATE 12752),
    (sym_return_statement, STATE 11814), (sym_delete_statement, STATE 11814),
    (sym_raise_statement, STATE 11814), (sym_pass_statement, STATE 11814),
    (sym_break_statement, STATE 11814), (sym_continue_statement, STATE 11814),
    (sym_extension_definition, STATE 925), (sym_mlir_region, STATE 925),
    (sym_comptime_statement, STATE 925), (sym_if_statement, STATE 925),
    (sym_match_statement, STATE 925), (sym_for_statement, STATE 925),
    (sym_while_statement, STATE 925), (sym_try_statement, STATE 925),
    (sym_with_statement, STATE 925), (sym_function_definition, STATE 925),
    (sym_global_statement, STATE 11814), (sym_nonlocal_statement, STATE 11814),
    (sym_exec_statement, STATE 11814), (sym_type_alias_statement, STATE 11814),
    (sym_parameterized_alias_statement, STATE 11814), (sym_class_definition, STATE 925),
    (sym_trait_definition, STATE 925), (sym_decorated_definition, STATE 925),
    (sym_decorator, STATE 3670), (sym_block, STATE 5232), (sym_pattern, STATE 8086),
    (sym_tuple_pattern, STATE 8101), (sym_list_pattern, STATE 8101),
    (sym_list_splat_pattern, STATE 6819), (sym_as_pattern, STATE 7969),
    (sym_expression, STATE 9883), (sym_primary_expression, STATE 7326),
    (sym_comptime_expression, STATE 7017), (sym_transfer_expression, STATE 7017),
    (sym_not_operator, STATE 7969), (sym_boolean_operator, STATE 7969),
    (sym_binary_operator, STATE 7017), (sym_unary_operator, STATE 7017),
    (sym_comparison_operator, STATE 7969), (sym_lambda, STATE 7969),
    (sym_assignment, STATE 12425), (sym_augmented_assignment, STATE 12425),
    (sym_pattern_list, STATE 8578), (sym_yield, STATE 12425), (sym_attribute, STATE 6836),
    (sym_subscript, STATE 6838), (sym_call, STATE 6845), (sym_mlir_type, STATE 7017),
    (sym_list, STATE 7017), (sym_set, STATE 7017), (sym_tuple, STATE 7017),
    (sym_dictionary, STATE 7017), (sym_struct_literal, STATE 7017),
    (sym_list_comprehension, STATE 7017), (sym_dictionary_comprehension, STATE 7017),
    (sym_set_comprehension, STATE 7017), (sym_generator_expression, STATE 7017),
    (sym_parenthesized_expression, STATE 7017), (sym_conditional_expression, STATE 7969),
    (sym_concatenated_string, STATE 7017), (sym_string, STATE 6751), (sym_await, STATE 7017),
    (aux_sym_module_repeat1, STATE 925), (aux_sym_decorated_definition_repeat1, STATE 3670),
    (sym_identifier, ACTIONS 9), (anon_sym_import, ACTIONS 11), (anon_sym_from, ACTIONS 13),
    (anon_sym_LPAREN, ACTIONS 15), (anon_sym_STAR, ACTIONS 17), (anon_sym_print, ACTIONS 19),
    (anon_sym_comptime, ACTIONS 99), (anon_sym_assert, ACTIONS 23),
    (anon_sym___comptime_assert, ACTIONS 25), (anon_sym_return, ACTIONS 27),
    (anon_sym_del, ACTIONS 29), (anon_sym_raise, ACTIONS 31), (anon_sym_pass, ACTIONS 33),
    (anon_sym_break, ACTIONS 35), (anon_sym_continue, ACTIONS 37),
    (anon_sym___extension, ACTIONS 101), (anon_sym___mlir_region, ACTIONS 103),
    (anon_sym_if, ACTIONS 105), (anon_sym_match, ACTIONS 107), (anon_sym_async, ACTIONS 109),
    (anon_sym_for, ACTIONS 111), (anon_sym_while, ACTIONS 113), (anon_sym_try, ACTIONS 115),
    (anon_sym_with, ACTIONS 117), (anon_sym_def, ACTIONS 119), (anon_sym_fn, ACTIONS 119),
    (anon_sym_LBRACK, ACTIONS 59), (anon_sym_LBRACE, ACTIONS 61), (anon_sym_global, ACTIONS 63),
    (anon_sym_nonlocal, ACTIONS 65), (anon_sym_exec, ACTIONS 67), (anon_sym_type, ACTIONS 69),
    (anon_sym_class, ACTIONS 121), (anon_sym_struct, ACTIONS 121), (anon_sym_mut, ACTIONS 73),
    (anon_sym_out, ACTIONS 73), (anon_sym_trait, ACTIONS 123), (anon_sym_AT, ACTIONS 77),
    (anon_sym_DASH, ACTIONS 79), (anon_sym_PLUS, ACTIONS 79), (anon_sym_ref, ACTIONS 81),
    (anon_sym_var, ACTIONS 81), (anon_sym_not, ACTIONS 83), (anon_sym_TILDE, ACTIONS 79),
    (anon_sym_lambda, ACTIONS 85), (anon_sym_yield, ACTIONS 87), (sym_ellipsis, ACTIONS 89),
    (anon_sym___mlir_type, ACTIONS 91), (sym_integer, ACTIONS 93), (sym_float, ACTIONS 89),
    (anon_sym_await, ACTIONS 95), (sym_true, ACTIONS 93), (sym_false, ACTIONS 93),
    (sym_none, ACTIONS 93), (sym_comment, ACTIONS 3), (sym_line_continuation, ACTIONS 3),
    (sym__dedent, ACTIONS 129), (sym_string_start, ACTIONS 97)]"

definition parse_table_219 :: "(nat \<times> nat) list" where "parse_table_219 = [
    (sym__statement, STATE 925), (sym__simple_statements, STATE 925),
    (sym_import_statement, STATE 11814), (sym_future_import_statement, STATE 11814),
    (sym_import_from_statement, STATE 11814), (sym_print_statement, STATE 11814),
    (sym_assert_statement, STATE 11814), (sym_comptime_assert_statement, STATE 11814),
    (sym_expression_statement, STATE 11814), (sym_tuple_expression, STATE 12425),
    (sym_named_expression, STATE 7969), (sym__named_expression_lhs, STATE 12752),
    (sym_return_statement, STATE 11814), (sym_delete_statement, STATE 11814),
    (sym_raise_statement, STATE 11814), (sym_pass_statement, STATE 11814),
    (sym_break_statement, STATE 11814), (sym_continue_statement, STATE 11814),
    (sym_extension_definition, STATE 925), (sym_mlir_region, STATE 925),
    (sym_comptime_statement, STATE 925), (sym_if_statement, STATE 925),
    (sym_match_statement, STATE 925), (sym_for_statement, STATE 925),
    (sym_while_statement, STATE 925), (sym_try_statement, STATE 925),
    (sym_with_statement, STATE 925), (sym_function_definition, STATE 925),
    (sym_global_statement, STATE 11814), (sym_nonlocal_statement, STATE 11814),
    (sym_exec_statement, STATE 11814), (sym_type_alias_statement, STATE 11814),
    (sym_parameterized_alias_statement, STATE 11814), (sym_class_definition, STATE 925),
    (sym_trait_definition, STATE 925), (sym_decorated_definition, STATE 925),
    (sym_decorator, STATE 3670), (sym_block, STATE 5234), (sym_pattern, STATE 8086),
    (sym_tuple_pattern, STATE 8101), (sym_list_pattern, STATE 8101),
    (sym_list_splat_pattern, STATE 6819), (sym_as_pattern, STATE 7969),
    (sym_expression, STATE 9883), (sym_primary_expression, STATE 7326),
    (sym_comptime_expression, STATE 7017), (sym_transfer_expression, STATE 7017),
    (sym_not_operator, STATE 7969), (sym_boolean_operator, STATE 7969),
    (sym_binary_operator, STATE 7017), (sym_unary_operator, STATE 7017),
    (sym_comparison_operator, STATE 7969), (sym_lambda, STATE 7969),
    (sym_assignment, STATE 12425), (sym_augmented_assignment, STATE 12425),
    (sym_pattern_list, STATE 8578), (sym_yield, STATE 12425), (sym_attribute, STATE 6836),
    (sym_subscript, STATE 6838), (sym_call, STATE 6845), (sym_mlir_type, STATE 7017),
    (sym_list, STATE 7017), (sym_set, STATE 7017), (sym_tuple, STATE 7017),
    (sym_dictionary, STATE 7017), (sym_struct_literal, STATE 7017),
    (sym_list_comprehension, STATE 7017), (sym_dictionary_comprehension, STATE 7017),
    (sym_set_comprehension, STATE 7017), (sym_generator_expression, STATE 7017),
    (sym_parenthesized_expression, STATE 7017), (sym_conditional_expression, STATE 7969),
    (sym_concatenated_string, STATE 7017), (sym_string, STATE 6751), (sym_await, STATE 7017),
    (aux_sym_module_repeat1, STATE 925), (aux_sym_decorated_definition_repeat1, STATE 3670),
    (sym_identifier, ACTIONS 9), (anon_sym_import, ACTIONS 11), (anon_sym_from, ACTIONS 13),
    (anon_sym_LPAREN, ACTIONS 15), (anon_sym_STAR, ACTIONS 17), (anon_sym_print, ACTIONS 19),
    (anon_sym_comptime, ACTIONS 99), (anon_sym_assert, ACTIONS 23),
    (anon_sym___comptime_assert, ACTIONS 25), (anon_sym_return, ACTIONS 27),
    (anon_sym_del, ACTIONS 29), (anon_sym_raise, ACTIONS 31), (anon_sym_pass, ACTIONS 33),
    (anon_sym_break, ACTIONS 35), (anon_sym_continue, ACTIONS 37),
    (anon_sym___extension, ACTIONS 101), (anon_sym___mlir_region, ACTIONS 103),
    (anon_sym_if, ACTIONS 105), (anon_sym_match, ACTIONS 107), (anon_sym_async, ACTIONS 109),
    (anon_sym_for, ACTIONS 111), (anon_sym_while, ACTIONS 113), (anon_sym_try, ACTIONS 115),
    (anon_sym_with, ACTIONS 117), (anon_sym_def, ACTIONS 119), (anon_sym_fn, ACTIONS 119),
    (anon_sym_LBRACK, ACTIONS 59), (anon_sym_LBRACE, ACTIONS 61), (anon_sym_global, ACTIONS 63),
    (anon_sym_nonlocal, ACTIONS 65), (anon_sym_exec, ACTIONS 67), (anon_sym_type, ACTIONS 69),
    (anon_sym_class, ACTIONS 121), (anon_sym_struct, ACTIONS 121), (anon_sym_mut, ACTIONS 73),
    (anon_sym_out, ACTIONS 73), (anon_sym_trait, ACTIONS 123), (anon_sym_AT, ACTIONS 77),
    (anon_sym_DASH, ACTIONS 79), (anon_sym_PLUS, ACTIONS 79), (anon_sym_ref, ACTIONS 81),
    (anon_sym_var, ACTIONS 81), (anon_sym_not, ACTIONS 83), (anon_sym_TILDE, ACTIONS 79),
    (anon_sym_lambda, ACTIONS 85), (anon_sym_yield, ACTIONS 87), (sym_ellipsis, ACTIONS 89),
    (anon_sym___mlir_type, ACTIONS 91), (sym_integer, ACTIONS 93), (sym_float, ACTIONS 89),
    (anon_sym_await, ACTIONS 95), (sym_true, ACTIONS 93), (sym_false, ACTIONS 93),
    (sym_none, ACTIONS 93), (sym_comment, ACTIONS 3), (sym_line_continuation, ACTIONS 3),
    (sym__dedent, ACTIONS 129), (sym_string_start, ACTIONS 97)]"

definition parse_table_220 :: "(nat \<times> nat) list" where "parse_table_220 = [
    (sym__statement, STATE 925), (sym__simple_statements, STATE 925),
    (sym_import_statement, STATE 11814), (sym_future_import_statement, STATE 11814),
    (sym_import_from_statement, STATE 11814), (sym_print_statement, STATE 11814),
    (sym_assert_statement, STATE 11814), (sym_comptime_assert_statement, STATE 11814),
    (sym_expression_statement, STATE 11814), (sym_tuple_expression, STATE 12425),
    (sym_named_expression, STATE 7969), (sym__named_expression_lhs, STATE 12752),
    (sym_return_statement, STATE 11814), (sym_delete_statement, STATE 11814),
    (sym_raise_statement, STATE 11814), (sym_pass_statement, STATE 11814),
    (sym_break_statement, STATE 11814), (sym_continue_statement, STATE 11814),
    (sym_extension_definition, STATE 925), (sym_mlir_region, STATE 925),
    (sym_comptime_statement, STATE 925), (sym_if_statement, STATE 925),
    (sym_match_statement, STATE 925), (sym_for_statement, STATE 925),
    (sym_while_statement, STATE 925), (sym_try_statement, STATE 925),
    (sym_with_statement, STATE 925), (sym_function_definition, STATE 925),
    (sym_global_statement, STATE 11814), (sym_nonlocal_statement, STATE 11814),
    (sym_exec_statement, STATE 11814), (sym_type_alias_statement, STATE 11814),
    (sym_parameterized_alias_statement, STATE 11814), (sym_class_definition, STATE 925),
    (sym_trait_definition, STATE 925), (sym_decorated_definition, STATE 925),
    (sym_decorator, STATE 3670), (sym_block, STATE 5237), (sym_pattern, STATE 8086),
    (sym_tuple_pattern, STATE 8101), (sym_list_pattern, STATE 8101),
    (sym_list_splat_pattern, STATE 6819), (sym_as_pattern, STATE 7969),
    (sym_expression, STATE 9883), (sym_primary_expression, STATE 7326),
    (sym_comptime_expression, STATE 7017), (sym_transfer_expression, STATE 7017),
    (sym_not_operator, STATE 7969), (sym_boolean_operator, STATE 7969),
    (sym_binary_operator, STATE 7017), (sym_unary_operator, STATE 7017),
    (sym_comparison_operator, STATE 7969), (sym_lambda, STATE 7969),
    (sym_assignment, STATE 12425), (sym_augmented_assignment, STATE 12425),
    (sym_pattern_list, STATE 8578), (sym_yield, STATE 12425), (sym_attribute, STATE 6836),
    (sym_subscript, STATE 6838), (sym_call, STATE 6845), (sym_mlir_type, STATE 7017),
    (sym_list, STATE 7017), (sym_set, STATE 7017), (sym_tuple, STATE 7017),
    (sym_dictionary, STATE 7017), (sym_struct_literal, STATE 7017),
    (sym_list_comprehension, STATE 7017), (sym_dictionary_comprehension, STATE 7017),
    (sym_set_comprehension, STATE 7017), (sym_generator_expression, STATE 7017),
    (sym_parenthesized_expression, STATE 7017), (sym_conditional_expression, STATE 7969),
    (sym_concatenated_string, STATE 7017), (sym_string, STATE 6751), (sym_await, STATE 7017),
    (aux_sym_module_repeat1, STATE 925), (aux_sym_decorated_definition_repeat1, STATE 3670),
    (sym_identifier, ACTIONS 9), (anon_sym_import, ACTIONS 11), (anon_sym_from, ACTIONS 13),
    (anon_sym_LPAREN, ACTIONS 15), (anon_sym_STAR, ACTIONS 17), (anon_sym_print, ACTIONS 19),
    (anon_sym_comptime, ACTIONS 99), (anon_sym_assert, ACTIONS 23),
    (anon_sym___comptime_assert, ACTIONS 25), (anon_sym_return, ACTIONS 27),
    (anon_sym_del, ACTIONS 29), (anon_sym_raise, ACTIONS 31), (anon_sym_pass, ACTIONS 33),
    (anon_sym_break, ACTIONS 35), (anon_sym_continue, ACTIONS 37),
    (anon_sym___extension, ACTIONS 101), (anon_sym___mlir_region, ACTIONS 103),
    (anon_sym_if, ACTIONS 105), (anon_sym_match, ACTIONS 107), (anon_sym_async, ACTIONS 109),
    (anon_sym_for, ACTIONS 111), (anon_sym_while, ACTIONS 113), (anon_sym_try, ACTIONS 115),
    (anon_sym_with, ACTIONS 117), (anon_sym_def, ACTIONS 119), (anon_sym_fn, ACTIONS 119),
    (anon_sym_LBRACK, ACTIONS 59), (anon_sym_LBRACE, ACTIONS 61), (anon_sym_global, ACTIONS 63),
    (anon_sym_nonlocal, ACTIONS 65), (anon_sym_exec, ACTIONS 67), (anon_sym_type, ACTIONS 69),
    (anon_sym_class, ACTIONS 121), (anon_sym_struct, ACTIONS 121), (anon_sym_mut, ACTIONS 73),
    (anon_sym_out, ACTIONS 73), (anon_sym_trait, ACTIONS 123), (anon_sym_AT, ACTIONS 77),
    (anon_sym_DASH, ACTIONS 79), (anon_sym_PLUS, ACTIONS 79), (anon_sym_ref, ACTIONS 81),
    (anon_sym_var, ACTIONS 81), (anon_sym_not, ACTIONS 83), (anon_sym_TILDE, ACTIONS 79),
    (anon_sym_lambda, ACTIONS 85), (anon_sym_yield, ACTIONS 87), (sym_ellipsis, ACTIONS 89),
    (anon_sym___mlir_type, ACTIONS 91), (sym_integer, ACTIONS 93), (sym_float, ACTIONS 89),
    (anon_sym_await, ACTIONS 95), (sym_true, ACTIONS 93), (sym_false, ACTIONS 93),
    (sym_none, ACTIONS 93), (sym_comment, ACTIONS 3), (sym_line_continuation, ACTIONS 3),
    (sym__dedent, ACTIONS 129), (sym_string_start, ACTIONS 97)]"

definition parse_table_221 :: "(nat \<times> nat) list" where "parse_table_221 = [
    (sym__statement, STATE 925), (sym__simple_statements, STATE 925),
    (sym_import_statement, STATE 11814), (sym_future_import_statement, STATE 11814),
    (sym_import_from_statement, STATE 11814), (sym_print_statement, STATE 11814),
    (sym_assert_statement, STATE 11814), (sym_comptime_assert_statement, STATE 11814),
    (sym_expression_statement, STATE 11814), (sym_tuple_expression, STATE 12425),
    (sym_named_expression, STATE 7969), (sym__named_expression_lhs, STATE 12752),
    (sym_return_statement, STATE 11814), (sym_delete_statement, STATE 11814),
    (sym_raise_statement, STATE 11814), (sym_pass_statement, STATE 11814),
    (sym_break_statement, STATE 11814), (sym_continue_statement, STATE 11814),
    (sym_extension_definition, STATE 925), (sym_mlir_region, STATE 925),
    (sym_comptime_statement, STATE 925), (sym_if_statement, STATE 925),
    (sym_match_statement, STATE 925), (sym_for_statement, STATE 925),
    (sym_while_statement, STATE 925), (sym_try_statement, STATE 925),
    (sym_with_statement, STATE 925), (sym_function_definition, STATE 925),
    (sym_global_statement, STATE 11814), (sym_nonlocal_statement, STATE 11814),
    (sym_exec_statement, STATE 11814), (sym_type_alias_statement, STATE 11814),
    (sym_parameterized_alias_statement, STATE 11814), (sym_class_definition, STATE 925),
    (sym_trait_definition, STATE 925), (sym_decorated_definition, STATE 925),
    (sym_decorator, STATE 3670), (sym_block, STATE 5244), (sym_pattern, STATE 8086),
    (sym_tuple_pattern, STATE 8101), (sym_list_pattern, STATE 8101),
    (sym_list_splat_pattern, STATE 6819), (sym_as_pattern, STATE 7969),
    (sym_expression, STATE 9883), (sym_primary_expression, STATE 7326),
    (sym_comptime_expression, STATE 7017), (sym_transfer_expression, STATE 7017),
    (sym_not_operator, STATE 7969), (sym_boolean_operator, STATE 7969),
    (sym_binary_operator, STATE 7017), (sym_unary_operator, STATE 7017),
    (sym_comparison_operator, STATE 7969), (sym_lambda, STATE 7969),
    (sym_assignment, STATE 12425), (sym_augmented_assignment, STATE 12425),
    (sym_pattern_list, STATE 8578), (sym_yield, STATE 12425), (sym_attribute, STATE 6836),
    (sym_subscript, STATE 6838), (sym_call, STATE 6845), (sym_mlir_type, STATE 7017),
    (sym_list, STATE 7017), (sym_set, STATE 7017), (sym_tuple, STATE 7017),
    (sym_dictionary, STATE 7017), (sym_struct_literal, STATE 7017),
    (sym_list_comprehension, STATE 7017), (sym_dictionary_comprehension, STATE 7017),
    (sym_set_comprehension, STATE 7017), (sym_generator_expression, STATE 7017),
    (sym_parenthesized_expression, STATE 7017), (sym_conditional_expression, STATE 7969),
    (sym_concatenated_string, STATE 7017), (sym_string, STATE 6751), (sym_await, STATE 7017),
    (aux_sym_module_repeat1, STATE 925), (aux_sym_decorated_definition_repeat1, STATE 3670),
    (sym_identifier, ACTIONS 9), (anon_sym_import, ACTIONS 11), (anon_sym_from, ACTIONS 13),
    (anon_sym_LPAREN, ACTIONS 15), (anon_sym_STAR, ACTIONS 17), (anon_sym_print, ACTIONS 19),
    (anon_sym_comptime, ACTIONS 99), (anon_sym_assert, ACTIONS 23),
    (anon_sym___comptime_assert, ACTIONS 25), (anon_sym_return, ACTIONS 27),
    (anon_sym_del, ACTIONS 29), (anon_sym_raise, ACTIONS 31), (anon_sym_pass, ACTIONS 33),
    (anon_sym_break, ACTIONS 35), (anon_sym_continue, ACTIONS 37),
    (anon_sym___extension, ACTIONS 101), (anon_sym___mlir_region, ACTIONS 103),
    (anon_sym_if, ACTIONS 105), (anon_sym_match, ACTIONS 107), (anon_sym_async, ACTIONS 109),
    (anon_sym_for, ACTIONS 111), (anon_sym_while, ACTIONS 113), (anon_sym_try, ACTIONS 115),
    (anon_sym_with, ACTIONS 117), (anon_sym_def, ACTIONS 119), (anon_sym_fn, ACTIONS 119),
    (anon_sym_LBRACK, ACTIONS 59), (anon_sym_LBRACE, ACTIONS 61), (anon_sym_global, ACTIONS 63),
    (anon_sym_nonlocal, ACTIONS 65), (anon_sym_exec, ACTIONS 67), (anon_sym_type, ACTIONS 69),
    (anon_sym_class, ACTIONS 121), (anon_sym_struct, ACTIONS 121), (anon_sym_mut, ACTIONS 73),
    (anon_sym_out, ACTIONS 73), (anon_sym_trait, ACTIONS 123), (anon_sym_AT, ACTIONS 77),
    (anon_sym_DASH, ACTIONS 79), (anon_sym_PLUS, ACTIONS 79), (anon_sym_ref, ACTIONS 81),
    (anon_sym_var, ACTIONS 81), (anon_sym_not, ACTIONS 83), (anon_sym_TILDE, ACTIONS 79),
    (anon_sym_lambda, ACTIONS 85), (anon_sym_yield, ACTIONS 87), (sym_ellipsis, ACTIONS 89),
    (anon_sym___mlir_type, ACTIONS 91), (sym_integer, ACTIONS 93), (sym_float, ACTIONS 89),
    (anon_sym_await, ACTIONS 95), (sym_true, ACTIONS 93), (sym_false, ACTIONS 93),
    (sym_none, ACTIONS 93), (sym_comment, ACTIONS 3), (sym_line_continuation, ACTIONS 3),
    (sym__dedent, ACTIONS 129), (sym_string_start, ACTIONS 97)]"

definition parse_table_222 :: "(nat \<times> nat) list" where "parse_table_222 = [
    (sym__statement, STATE 925), (sym__simple_statements, STATE 925),
    (sym_import_statement, STATE 11814), (sym_future_import_statement, STATE 11814),
    (sym_import_from_statement, STATE 11814), (sym_print_statement, STATE 11814),
    (sym_assert_statement, STATE 11814), (sym_comptime_assert_statement, STATE 11814),
    (sym_expression_statement, STATE 11814), (sym_tuple_expression, STATE 12425),
    (sym_named_expression, STATE 7969), (sym__named_expression_lhs, STATE 12752),
    (sym_return_statement, STATE 11814), (sym_delete_statement, STATE 11814),
    (sym_raise_statement, STATE 11814), (sym_pass_statement, STATE 11814),
    (sym_break_statement, STATE 11814), (sym_continue_statement, STATE 11814),
    (sym_extension_definition, STATE 925), (sym_mlir_region, STATE 925),
    (sym_comptime_statement, STATE 925), (sym_if_statement, STATE 925),
    (sym_match_statement, STATE 925), (sym_for_statement, STATE 925),
    (sym_while_statement, STATE 925), (sym_try_statement, STATE 925),
    (sym_with_statement, STATE 925), (sym_function_definition, STATE 925),
    (sym_global_statement, STATE 11814), (sym_nonlocal_statement, STATE 11814),
    (sym_exec_statement, STATE 11814), (sym_type_alias_statement, STATE 11814),
    (sym_parameterized_alias_statement, STATE 11814), (sym_class_definition, STATE 925),
    (sym_trait_definition, STATE 925), (sym_decorated_definition, STATE 925),
    (sym_decorator, STATE 3670), (sym_block, STATE 5252), (sym_pattern, STATE 8086),
    (sym_tuple_pattern, STATE 8101), (sym_list_pattern, STATE 8101),
    (sym_list_splat_pattern, STATE 6819), (sym_as_pattern, STATE 7969),
    (sym_expression, STATE 9883), (sym_primary_expression, STATE 7326),
    (sym_comptime_expression, STATE 7017), (sym_transfer_expression, STATE 7017),
    (sym_not_operator, STATE 7969), (sym_boolean_operator, STATE 7969),
    (sym_binary_operator, STATE 7017), (sym_unary_operator, STATE 7017),
    (sym_comparison_operator, STATE 7969), (sym_lambda, STATE 7969),
    (sym_assignment, STATE 12425), (sym_augmented_assignment, STATE 12425),
    (sym_pattern_list, STATE 8578), (sym_yield, STATE 12425), (sym_attribute, STATE 6836),
    (sym_subscript, STATE 6838), (sym_call, STATE 6845), (sym_mlir_type, STATE 7017),
    (sym_list, STATE 7017), (sym_set, STATE 7017), (sym_tuple, STATE 7017),
    (sym_dictionary, STATE 7017), (sym_struct_literal, STATE 7017),
    (sym_list_comprehension, STATE 7017), (sym_dictionary_comprehension, STATE 7017),
    (sym_set_comprehension, STATE 7017), (sym_generator_expression, STATE 7017),
    (sym_parenthesized_expression, STATE 7017), (sym_conditional_expression, STATE 7969),
    (sym_concatenated_string, STATE 7017), (sym_string, STATE 6751), (sym_await, STATE 7017),
    (aux_sym_module_repeat1, STATE 925), (aux_sym_decorated_definition_repeat1, STATE 3670),
    (sym_identifier, ACTIONS 9), (anon_sym_import, ACTIONS 11), (anon_sym_from, ACTIONS 13),
    (anon_sym_LPAREN, ACTIONS 15), (anon_sym_STAR, ACTIONS 17), (anon_sym_print, ACTIONS 19),
    (anon_sym_comptime, ACTIONS 99), (anon_sym_assert, ACTIONS 23),
    (anon_sym___comptime_assert, ACTIONS 25), (anon_sym_return, ACTIONS 27),
    (anon_sym_del, ACTIONS 29), (anon_sym_raise, ACTIONS 31), (anon_sym_pass, ACTIONS 33),
    (anon_sym_break, ACTIONS 35), (anon_sym_continue, ACTIONS 37),
    (anon_sym___extension, ACTIONS 101), (anon_sym___mlir_region, ACTIONS 103),
    (anon_sym_if, ACTIONS 105), (anon_sym_match, ACTIONS 107), (anon_sym_async, ACTIONS 109),
    (anon_sym_for, ACTIONS 111), (anon_sym_while, ACTIONS 113), (anon_sym_try, ACTIONS 115),
    (anon_sym_with, ACTIONS 117), (anon_sym_def, ACTIONS 119), (anon_sym_fn, ACTIONS 119),
    (anon_sym_LBRACK, ACTIONS 59), (anon_sym_LBRACE, ACTIONS 61), (anon_sym_global, ACTIONS 63),
    (anon_sym_nonlocal, ACTIONS 65), (anon_sym_exec, ACTIONS 67), (anon_sym_type, ACTIONS 69),
    (anon_sym_class, ACTIONS 121), (anon_sym_struct, ACTIONS 121), (anon_sym_mut, ACTIONS 73),
    (anon_sym_out, ACTIONS 73), (anon_sym_trait, ACTIONS 123), (anon_sym_AT, ACTIONS 77),
    (anon_sym_DASH, ACTIONS 79), (anon_sym_PLUS, ACTIONS 79), (anon_sym_ref, ACTIONS 81),
    (anon_sym_var, ACTIONS 81), (anon_sym_not, ACTIONS 83), (anon_sym_TILDE, ACTIONS 79),
    (anon_sym_lambda, ACTIONS 85), (anon_sym_yield, ACTIONS 87), (sym_ellipsis, ACTIONS 89),
    (anon_sym___mlir_type, ACTIONS 91), (sym_integer, ACTIONS 93), (sym_float, ACTIONS 89),
    (anon_sym_await, ACTIONS 95), (sym_true, ACTIONS 93), (sym_false, ACTIONS 93),
    (sym_none, ACTIONS 93), (sym_comment, ACTIONS 3), (sym_line_continuation, ACTIONS 3),
    (sym__dedent, ACTIONS 129), (sym_string_start, ACTIONS 97)]"

definition parse_table_223 :: "(nat \<times> nat) list" where "parse_table_223 = [
    (sym__statement, STATE 925), (sym__simple_statements, STATE 925),
    (sym_import_statement, STATE 11814), (sym_future_import_statement, STATE 11814),
    (sym_import_from_statement, STATE 11814), (sym_print_statement, STATE 11814),
    (sym_assert_statement, STATE 11814), (sym_comptime_assert_statement, STATE 11814),
    (sym_expression_statement, STATE 11814), (sym_tuple_expression, STATE 12425),
    (sym_named_expression, STATE 7969), (sym__named_expression_lhs, STATE 12752),
    (sym_return_statement, STATE 11814), (sym_delete_statement, STATE 11814),
    (sym_raise_statement, STATE 11814), (sym_pass_statement, STATE 11814),
    (sym_break_statement, STATE 11814), (sym_continue_statement, STATE 11814),
    (sym_extension_definition, STATE 925), (sym_mlir_region, STATE 925),
    (sym_comptime_statement, STATE 925), (sym_if_statement, STATE 925),
    (sym_match_statement, STATE 925), (sym_for_statement, STATE 925),
    (sym_while_statement, STATE 925), (sym_try_statement, STATE 925),
    (sym_with_statement, STATE 925), (sym_function_definition, STATE 925),
    (sym_global_statement, STATE 11814), (sym_nonlocal_statement, STATE 11814),
    (sym_exec_statement, STATE 11814), (sym_type_alias_statement, STATE 11814),
    (sym_parameterized_alias_statement, STATE 11814), (sym_class_definition, STATE 925),
    (sym_trait_definition, STATE 925), (sym_decorated_definition, STATE 925),
    (sym_decorator, STATE 3670), (sym_block, STATE 5254), (sym_pattern, STATE 8086),
    (sym_tuple_pattern, STATE 8101), (sym_list_pattern, STATE 8101),
    (sym_list_splat_pattern, STATE 6819), (sym_as_pattern, STATE 7969),
    (sym_expression, STATE 9883), (sym_primary_expression, STATE 7326),
    (sym_comptime_expression, STATE 7017), (sym_transfer_expression, STATE 7017),
    (sym_not_operator, STATE 7969), (sym_boolean_operator, STATE 7969),
    (sym_binary_operator, STATE 7017), (sym_unary_operator, STATE 7017),
    (sym_comparison_operator, STATE 7969), (sym_lambda, STATE 7969),
    (sym_assignment, STATE 12425), (sym_augmented_assignment, STATE 12425),
    (sym_pattern_list, STATE 8578), (sym_yield, STATE 12425), (sym_attribute, STATE 6836),
    (sym_subscript, STATE 6838), (sym_call, STATE 6845), (sym_mlir_type, STATE 7017),
    (sym_list, STATE 7017), (sym_set, STATE 7017), (sym_tuple, STATE 7017),
    (sym_dictionary, STATE 7017), (sym_struct_literal, STATE 7017),
    (sym_list_comprehension, STATE 7017), (sym_dictionary_comprehension, STATE 7017),
    (sym_set_comprehension, STATE 7017), (sym_generator_expression, STATE 7017),
    (sym_parenthesized_expression, STATE 7017), (sym_conditional_expression, STATE 7969),
    (sym_concatenated_string, STATE 7017), (sym_string, STATE 6751), (sym_await, STATE 7017),
    (aux_sym_module_repeat1, STATE 925), (aux_sym_decorated_definition_repeat1, STATE 3670),
    (sym_identifier, ACTIONS 9), (anon_sym_import, ACTIONS 11), (anon_sym_from, ACTIONS 13),
    (anon_sym_LPAREN, ACTIONS 15), (anon_sym_STAR, ACTIONS 17), (anon_sym_print, ACTIONS 19),
    (anon_sym_comptime, ACTIONS 99), (anon_sym_assert, ACTIONS 23),
    (anon_sym___comptime_assert, ACTIONS 25), (anon_sym_return, ACTIONS 27),
    (anon_sym_del, ACTIONS 29), (anon_sym_raise, ACTIONS 31), (anon_sym_pass, ACTIONS 33),
    (anon_sym_break, ACTIONS 35), (anon_sym_continue, ACTIONS 37),
    (anon_sym___extension, ACTIONS 101), (anon_sym___mlir_region, ACTIONS 103),
    (anon_sym_if, ACTIONS 105), (anon_sym_match, ACTIONS 107), (anon_sym_async, ACTIONS 109),
    (anon_sym_for, ACTIONS 111), (anon_sym_while, ACTIONS 113), (anon_sym_try, ACTIONS 115),
    (anon_sym_with, ACTIONS 117), (anon_sym_def, ACTIONS 119), (anon_sym_fn, ACTIONS 119),
    (anon_sym_LBRACK, ACTIONS 59), (anon_sym_LBRACE, ACTIONS 61), (anon_sym_global, ACTIONS 63),
    (anon_sym_nonlocal, ACTIONS 65), (anon_sym_exec, ACTIONS 67), (anon_sym_type, ACTIONS 69),
    (anon_sym_class, ACTIONS 121), (anon_sym_struct, ACTIONS 121), (anon_sym_mut, ACTIONS 73),
    (anon_sym_out, ACTIONS 73), (anon_sym_trait, ACTIONS 123), (anon_sym_AT, ACTIONS 77),
    (anon_sym_DASH, ACTIONS 79), (anon_sym_PLUS, ACTIONS 79), (anon_sym_ref, ACTIONS 81),
    (anon_sym_var, ACTIONS 81), (anon_sym_not, ACTIONS 83), (anon_sym_TILDE, ACTIONS 79),
    (anon_sym_lambda, ACTIONS 85), (anon_sym_yield, ACTIONS 87), (sym_ellipsis, ACTIONS 89),
    (anon_sym___mlir_type, ACTIONS 91), (sym_integer, ACTIONS 93), (sym_float, ACTIONS 89),
    (anon_sym_await, ACTIONS 95), (sym_true, ACTIONS 93), (sym_false, ACTIONS 93),
    (sym_none, ACTIONS 93), (sym_comment, ACTIONS 3), (sym_line_continuation, ACTIONS 3),
    (sym__dedent, ACTIONS 129), (sym_string_start, ACTIONS 97)]"

definition parse_table_224 :: "(nat \<times> nat) list" where "parse_table_224 = [
    (sym__statement, STATE 925), (sym__simple_statements, STATE 925),
    (sym_import_statement, STATE 11814), (sym_future_import_statement, STATE 11814),
    (sym_import_from_statement, STATE 11814), (sym_print_statement, STATE 11814),
    (sym_assert_statement, STATE 11814), (sym_comptime_assert_statement, STATE 11814),
    (sym_expression_statement, STATE 11814), (sym_tuple_expression, STATE 12425),
    (sym_named_expression, STATE 7969), (sym__named_expression_lhs, STATE 12752),
    (sym_return_statement, STATE 11814), (sym_delete_statement, STATE 11814),
    (sym_raise_statement, STATE 11814), (sym_pass_statement, STATE 11814),
    (sym_break_statement, STATE 11814), (sym_continue_statement, STATE 11814),
    (sym_extension_definition, STATE 925), (sym_mlir_region, STATE 925),
    (sym_comptime_statement, STATE 925), (sym_if_statement, STATE 925),
    (sym_match_statement, STATE 925), (sym_for_statement, STATE 925),
    (sym_while_statement, STATE 925), (sym_try_statement, STATE 925),
    (sym_with_statement, STATE 925), (sym_function_definition, STATE 925),
    (sym_global_statement, STATE 11814), (sym_nonlocal_statement, STATE 11814),
    (sym_exec_statement, STATE 11814), (sym_type_alias_statement, STATE 11814),
    (sym_parameterized_alias_statement, STATE 11814), (sym_class_definition, STATE 925),
    (sym_trait_definition, STATE 925), (sym_decorated_definition, STATE 925),
    (sym_decorator, STATE 3670), (sym_block, STATE 5259), (sym_pattern, STATE 8086),
    (sym_tuple_pattern, STATE 8101), (sym_list_pattern, STATE 8101),
    (sym_list_splat_pattern, STATE 6819), (sym_as_pattern, STATE 7969),
    (sym_expression, STATE 9883), (sym_primary_expression, STATE 7326),
    (sym_comptime_expression, STATE 7017), (sym_transfer_expression, STATE 7017),
    (sym_not_operator, STATE 7969), (sym_boolean_operator, STATE 7969),
    (sym_binary_operator, STATE 7017), (sym_unary_operator, STATE 7017),
    (sym_comparison_operator, STATE 7969), (sym_lambda, STATE 7969),
    (sym_assignment, STATE 12425), (sym_augmented_assignment, STATE 12425),
    (sym_pattern_list, STATE 8578), (sym_yield, STATE 12425), (sym_attribute, STATE 6836),
    (sym_subscript, STATE 6838), (sym_call, STATE 6845), (sym_mlir_type, STATE 7017),
    (sym_list, STATE 7017), (sym_set, STATE 7017), (sym_tuple, STATE 7017),
    (sym_dictionary, STATE 7017), (sym_struct_literal, STATE 7017),
    (sym_list_comprehension, STATE 7017), (sym_dictionary_comprehension, STATE 7017),
    (sym_set_comprehension, STATE 7017), (sym_generator_expression, STATE 7017),
    (sym_parenthesized_expression, STATE 7017), (sym_conditional_expression, STATE 7969),
    (sym_concatenated_string, STATE 7017), (sym_string, STATE 6751), (sym_await, STATE 7017),
    (aux_sym_module_repeat1, STATE 925), (aux_sym_decorated_definition_repeat1, STATE 3670),
    (sym_identifier, ACTIONS 9), (anon_sym_import, ACTIONS 11), (anon_sym_from, ACTIONS 13),
    (anon_sym_LPAREN, ACTIONS 15), (anon_sym_STAR, ACTIONS 17), (anon_sym_print, ACTIONS 19),
    (anon_sym_comptime, ACTIONS 99), (anon_sym_assert, ACTIONS 23),
    (anon_sym___comptime_assert, ACTIONS 25), (anon_sym_return, ACTIONS 27),
    (anon_sym_del, ACTIONS 29), (anon_sym_raise, ACTIONS 31), (anon_sym_pass, ACTIONS 33),
    (anon_sym_break, ACTIONS 35), (anon_sym_continue, ACTIONS 37),
    (anon_sym___extension, ACTIONS 101), (anon_sym___mlir_region, ACTIONS 103),
    (anon_sym_if, ACTIONS 105), (anon_sym_match, ACTIONS 107), (anon_sym_async, ACTIONS 109),
    (anon_sym_for, ACTIONS 111), (anon_sym_while, ACTIONS 113), (anon_sym_try, ACTIONS 115),
    (anon_sym_with, ACTIONS 117), (anon_sym_def, ACTIONS 119), (anon_sym_fn, ACTIONS 119),
    (anon_sym_LBRACK, ACTIONS 59), (anon_sym_LBRACE, ACTIONS 61), (anon_sym_global, ACTIONS 63),
    (anon_sym_nonlocal, ACTIONS 65), (anon_sym_exec, ACTIONS 67), (anon_sym_type, ACTIONS 69),
    (anon_sym_class, ACTIONS 121), (anon_sym_struct, ACTIONS 121), (anon_sym_mut, ACTIONS 73),
    (anon_sym_out, ACTIONS 73), (anon_sym_trait, ACTIONS 123), (anon_sym_AT, ACTIONS 77),
    (anon_sym_DASH, ACTIONS 79), (anon_sym_PLUS, ACTIONS 79), (anon_sym_ref, ACTIONS 81),
    (anon_sym_var, ACTIONS 81), (anon_sym_not, ACTIONS 83), (anon_sym_TILDE, ACTIONS 79),
    (anon_sym_lambda, ACTIONS 85), (anon_sym_yield, ACTIONS 87), (sym_ellipsis, ACTIONS 89),
    (anon_sym___mlir_type, ACTIONS 91), (sym_integer, ACTIONS 93), (sym_float, ACTIONS 89),
    (anon_sym_await, ACTIONS 95), (sym_true, ACTIONS 93), (sym_false, ACTIONS 93),
    (sym_none, ACTIONS 93), (sym_comment, ACTIONS 3), (sym_line_continuation, ACTIONS 3),
    (sym__dedent, ACTIONS 129), (sym_string_start, ACTIONS 97)]"

definition parse_table_225 :: "(nat \<times> nat) list" where "parse_table_225 = [
    (sym__statement, STATE 925), (sym__simple_statements, STATE 925),
    (sym_import_statement, STATE 11814), (sym_future_import_statement, STATE 11814),
    (sym_import_from_statement, STATE 11814), (sym_print_statement, STATE 11814),
    (sym_assert_statement, STATE 11814), (sym_comptime_assert_statement, STATE 11814),
    (sym_expression_statement, STATE 11814), (sym_tuple_expression, STATE 12425),
    (sym_named_expression, STATE 7969), (sym__named_expression_lhs, STATE 12752),
    (sym_return_statement, STATE 11814), (sym_delete_statement, STATE 11814),
    (sym_raise_statement, STATE 11814), (sym_pass_statement, STATE 11814),
    (sym_break_statement, STATE 11814), (sym_continue_statement, STATE 11814),
    (sym_extension_definition, STATE 925), (sym_mlir_region, STATE 925),
    (sym_comptime_statement, STATE 925), (sym_if_statement, STATE 925),
    (sym_match_statement, STATE 925), (sym_for_statement, STATE 925),
    (sym_while_statement, STATE 925), (sym_try_statement, STATE 925),
    (sym_with_statement, STATE 925), (sym_function_definition, STATE 925),
    (sym_global_statement, STATE 11814), (sym_nonlocal_statement, STATE 11814),
    (sym_exec_statement, STATE 11814), (sym_type_alias_statement, STATE 11814),
    (sym_parameterized_alias_statement, STATE 11814), (sym_class_definition, STATE 925),
    (sym_trait_definition, STATE 925), (sym_decorated_definition, STATE 925),
    (sym_decorator, STATE 3670), (sym_block, STATE 5264), (sym_pattern, STATE 8086),
    (sym_tuple_pattern, STATE 8101), (sym_list_pattern, STATE 8101),
    (sym_list_splat_pattern, STATE 6819), (sym_as_pattern, STATE 7969),
    (sym_expression, STATE 9883), (sym_primary_expression, STATE 7326),
    (sym_comptime_expression, STATE 7017), (sym_transfer_expression, STATE 7017),
    (sym_not_operator, STATE 7969), (sym_boolean_operator, STATE 7969),
    (sym_binary_operator, STATE 7017), (sym_unary_operator, STATE 7017),
    (sym_comparison_operator, STATE 7969), (sym_lambda, STATE 7969),
    (sym_assignment, STATE 12425), (sym_augmented_assignment, STATE 12425),
    (sym_pattern_list, STATE 8578), (sym_yield, STATE 12425), (sym_attribute, STATE 6836),
    (sym_subscript, STATE 6838), (sym_call, STATE 6845), (sym_mlir_type, STATE 7017),
    (sym_list, STATE 7017), (sym_set, STATE 7017), (sym_tuple, STATE 7017),
    (sym_dictionary, STATE 7017), (sym_struct_literal, STATE 7017),
    (sym_list_comprehension, STATE 7017), (sym_dictionary_comprehension, STATE 7017),
    (sym_set_comprehension, STATE 7017), (sym_generator_expression, STATE 7017),
    (sym_parenthesized_expression, STATE 7017), (sym_conditional_expression, STATE 7969),
    (sym_concatenated_string, STATE 7017), (sym_string, STATE 6751), (sym_await, STATE 7017),
    (aux_sym_module_repeat1, STATE 925), (aux_sym_decorated_definition_repeat1, STATE 3670),
    (sym_identifier, ACTIONS 9), (anon_sym_import, ACTIONS 11), (anon_sym_from, ACTIONS 13),
    (anon_sym_LPAREN, ACTIONS 15), (anon_sym_STAR, ACTIONS 17), (anon_sym_print, ACTIONS 19),
    (anon_sym_comptime, ACTIONS 99), (anon_sym_assert, ACTIONS 23),
    (anon_sym___comptime_assert, ACTIONS 25), (anon_sym_return, ACTIONS 27),
    (anon_sym_del, ACTIONS 29), (anon_sym_raise, ACTIONS 31), (anon_sym_pass, ACTIONS 33),
    (anon_sym_break, ACTIONS 35), (anon_sym_continue, ACTIONS 37),
    (anon_sym___extension, ACTIONS 101), (anon_sym___mlir_region, ACTIONS 103),
    (anon_sym_if, ACTIONS 105), (anon_sym_match, ACTIONS 107), (anon_sym_async, ACTIONS 109),
    (anon_sym_for, ACTIONS 111), (anon_sym_while, ACTIONS 113), (anon_sym_try, ACTIONS 115),
    (anon_sym_with, ACTIONS 117), (anon_sym_def, ACTIONS 119), (anon_sym_fn, ACTIONS 119),
    (anon_sym_LBRACK, ACTIONS 59), (anon_sym_LBRACE, ACTIONS 61), (anon_sym_global, ACTIONS 63),
    (anon_sym_nonlocal, ACTIONS 65), (anon_sym_exec, ACTIONS 67), (anon_sym_type, ACTIONS 69),
    (anon_sym_class, ACTIONS 121), (anon_sym_struct, ACTIONS 121), (anon_sym_mut, ACTIONS 73),
    (anon_sym_out, ACTIONS 73), (anon_sym_trait, ACTIONS 123), (anon_sym_AT, ACTIONS 77),
    (anon_sym_DASH, ACTIONS 79), (anon_sym_PLUS, ACTIONS 79), (anon_sym_ref, ACTIONS 81),
    (anon_sym_var, ACTIONS 81), (anon_sym_not, ACTIONS 83), (anon_sym_TILDE, ACTIONS 79),
    (anon_sym_lambda, ACTIONS 85), (anon_sym_yield, ACTIONS 87), (sym_ellipsis, ACTIONS 89),
    (anon_sym___mlir_type, ACTIONS 91), (sym_integer, ACTIONS 93), (sym_float, ACTIONS 89),
    (anon_sym_await, ACTIONS 95), (sym_true, ACTIONS 93), (sym_false, ACTIONS 93),
    (sym_none, ACTIONS 93), (sym_comment, ACTIONS 3), (sym_line_continuation, ACTIONS 3),
    (sym__dedent, ACTIONS 129), (sym_string_start, ACTIONS 97)]"

definition parse_table_226 :: "(nat \<times> nat) list" where "parse_table_226 = [
    (sym__statement, STATE 925), (sym__simple_statements, STATE 925),
    (sym_import_statement, STATE 11814), (sym_future_import_statement, STATE 11814),
    (sym_import_from_statement, STATE 11814), (sym_print_statement, STATE 11814),
    (sym_assert_statement, STATE 11814), (sym_comptime_assert_statement, STATE 11814),
    (sym_expression_statement, STATE 11814), (sym_tuple_expression, STATE 12425),
    (sym_named_expression, STATE 7969), (sym__named_expression_lhs, STATE 12752),
    (sym_return_statement, STATE 11814), (sym_delete_statement, STATE 11814),
    (sym_raise_statement, STATE 11814), (sym_pass_statement, STATE 11814),
    (sym_break_statement, STATE 11814), (sym_continue_statement, STATE 11814),
    (sym_extension_definition, STATE 925), (sym_mlir_region, STATE 925),
    (sym_comptime_statement, STATE 925), (sym_if_statement, STATE 925),
    (sym_match_statement, STATE 925), (sym_for_statement, STATE 925),
    (sym_while_statement, STATE 925), (sym_try_statement, STATE 925),
    (sym_with_statement, STATE 925), (sym_function_definition, STATE 925),
    (sym_global_statement, STATE 11814), (sym_nonlocal_statement, STATE 11814),
    (sym_exec_statement, STATE 11814), (sym_type_alias_statement, STATE 11814),
    (sym_parameterized_alias_statement, STATE 11814), (sym_class_definition, STATE 925),
    (sym_trait_definition, STATE 925), (sym_decorated_definition, STATE 925),
    (sym_decorator, STATE 3670), (sym_block, STATE 5267), (sym_pattern, STATE 8086),
    (sym_tuple_pattern, STATE 8101), (sym_list_pattern, STATE 8101),
    (sym_list_splat_pattern, STATE 6819), (sym_as_pattern, STATE 7969),
    (sym_expression, STATE 9883), (sym_primary_expression, STATE 7326),
    (sym_comptime_expression, STATE 7017), (sym_transfer_expression, STATE 7017),
    (sym_not_operator, STATE 7969), (sym_boolean_operator, STATE 7969),
    (sym_binary_operator, STATE 7017), (sym_unary_operator, STATE 7017),
    (sym_comparison_operator, STATE 7969), (sym_lambda, STATE 7969),
    (sym_assignment, STATE 12425), (sym_augmented_assignment, STATE 12425),
    (sym_pattern_list, STATE 8578), (sym_yield, STATE 12425), (sym_attribute, STATE 6836),
    (sym_subscript, STATE 6838), (sym_call, STATE 6845), (sym_mlir_type, STATE 7017),
    (sym_list, STATE 7017), (sym_set, STATE 7017), (sym_tuple, STATE 7017),
    (sym_dictionary, STATE 7017), (sym_struct_literal, STATE 7017),
    (sym_list_comprehension, STATE 7017), (sym_dictionary_comprehension, STATE 7017),
    (sym_set_comprehension, STATE 7017), (sym_generator_expression, STATE 7017),
    (sym_parenthesized_expression, STATE 7017), (sym_conditional_expression, STATE 7969),
    (sym_concatenated_string, STATE 7017), (sym_string, STATE 6751), (sym_await, STATE 7017),
    (aux_sym_module_repeat1, STATE 925), (aux_sym_decorated_definition_repeat1, STATE 3670),
    (sym_identifier, ACTIONS 9), (anon_sym_import, ACTIONS 11), (anon_sym_from, ACTIONS 13),
    (anon_sym_LPAREN, ACTIONS 15), (anon_sym_STAR, ACTIONS 17), (anon_sym_print, ACTIONS 19),
    (anon_sym_comptime, ACTIONS 99), (anon_sym_assert, ACTIONS 23),
    (anon_sym___comptime_assert, ACTIONS 25), (anon_sym_return, ACTIONS 27),
    (anon_sym_del, ACTIONS 29), (anon_sym_raise, ACTIONS 31), (anon_sym_pass, ACTIONS 33),
    (anon_sym_break, ACTIONS 35), (anon_sym_continue, ACTIONS 37),
    (anon_sym___extension, ACTIONS 101), (anon_sym___mlir_region, ACTIONS 103),
    (anon_sym_if, ACTIONS 105), (anon_sym_match, ACTIONS 107), (anon_sym_async, ACTIONS 109),
    (anon_sym_for, ACTIONS 111), (anon_sym_while, ACTIONS 113), (anon_sym_try, ACTIONS 115),
    (anon_sym_with, ACTIONS 117), (anon_sym_def, ACTIONS 119), (anon_sym_fn, ACTIONS 119),
    (anon_sym_LBRACK, ACTIONS 59), (anon_sym_LBRACE, ACTIONS 61), (anon_sym_global, ACTIONS 63),
    (anon_sym_nonlocal, ACTIONS 65), (anon_sym_exec, ACTIONS 67), (anon_sym_type, ACTIONS 69),
    (anon_sym_class, ACTIONS 121), (anon_sym_struct, ACTIONS 121), (anon_sym_mut, ACTIONS 73),
    (anon_sym_out, ACTIONS 73), (anon_sym_trait, ACTIONS 123), (anon_sym_AT, ACTIONS 77),
    (anon_sym_DASH, ACTIONS 79), (anon_sym_PLUS, ACTIONS 79), (anon_sym_ref, ACTIONS 81),
    (anon_sym_var, ACTIONS 81), (anon_sym_not, ACTIONS 83), (anon_sym_TILDE, ACTIONS 79),
    (anon_sym_lambda, ACTIONS 85), (anon_sym_yield, ACTIONS 87), (sym_ellipsis, ACTIONS 89),
    (anon_sym___mlir_type, ACTIONS 91), (sym_integer, ACTIONS 93), (sym_float, ACTIONS 89),
    (anon_sym_await, ACTIONS 95), (sym_true, ACTIONS 93), (sym_false, ACTIONS 93),
    (sym_none, ACTIONS 93), (sym_comment, ACTIONS 3), (sym_line_continuation, ACTIONS 3),
    (sym__dedent, ACTIONS 129), (sym_string_start, ACTIONS 97)]"

definition parse_table_227 :: "(nat \<times> nat) list" where "parse_table_227 = [
    (sym__statement, STATE 925), (sym__simple_statements, STATE 925),
    (sym_import_statement, STATE 11814), (sym_future_import_statement, STATE 11814),
    (sym_import_from_statement, STATE 11814), (sym_print_statement, STATE 11814),
    (sym_assert_statement, STATE 11814), (sym_comptime_assert_statement, STATE 11814),
    (sym_expression_statement, STATE 11814), (sym_tuple_expression, STATE 12425),
    (sym_named_expression, STATE 7969), (sym__named_expression_lhs, STATE 12752),
    (sym_return_statement, STATE 11814), (sym_delete_statement, STATE 11814),
    (sym_raise_statement, STATE 11814), (sym_pass_statement, STATE 11814),
    (sym_break_statement, STATE 11814), (sym_continue_statement, STATE 11814),
    (sym_extension_definition, STATE 925), (sym_mlir_region, STATE 925),
    (sym_comptime_statement, STATE 925), (sym_if_statement, STATE 925),
    (sym_match_statement, STATE 925), (sym_for_statement, STATE 925),
    (sym_while_statement, STATE 925), (sym_try_statement, STATE 925),
    (sym_with_statement, STATE 925), (sym_function_definition, STATE 925),
    (sym_global_statement, STATE 11814), (sym_nonlocal_statement, STATE 11814),
    (sym_exec_statement, STATE 11814), (sym_type_alias_statement, STATE 11814),
    (sym_parameterized_alias_statement, STATE 11814), (sym_class_definition, STATE 925),
    (sym_trait_definition, STATE 925), (sym_decorated_definition, STATE 925),
    (sym_decorator, STATE 3670), (sym_block, STATE 5270), (sym_pattern, STATE 8086),
    (sym_tuple_pattern, STATE 8101), (sym_list_pattern, STATE 8101),
    (sym_list_splat_pattern, STATE 6819), (sym_as_pattern, STATE 7969),
    (sym_expression, STATE 9883), (sym_primary_expression, STATE 7326),
    (sym_comptime_expression, STATE 7017), (sym_transfer_expression, STATE 7017),
    (sym_not_operator, STATE 7969), (sym_boolean_operator, STATE 7969),
    (sym_binary_operator, STATE 7017), (sym_unary_operator, STATE 7017),
    (sym_comparison_operator, STATE 7969), (sym_lambda, STATE 7969),
    (sym_assignment, STATE 12425), (sym_augmented_assignment, STATE 12425),
    (sym_pattern_list, STATE 8578), (sym_yield, STATE 12425), (sym_attribute, STATE 6836),
    (sym_subscript, STATE 6838), (sym_call, STATE 6845), (sym_mlir_type, STATE 7017),
    (sym_list, STATE 7017), (sym_set, STATE 7017), (sym_tuple, STATE 7017),
    (sym_dictionary, STATE 7017), (sym_struct_literal, STATE 7017),
    (sym_list_comprehension, STATE 7017), (sym_dictionary_comprehension, STATE 7017),
    (sym_set_comprehension, STATE 7017), (sym_generator_expression, STATE 7017),
    (sym_parenthesized_expression, STATE 7017), (sym_conditional_expression, STATE 7969),
    (sym_concatenated_string, STATE 7017), (sym_string, STATE 6751), (sym_await, STATE 7017),
    (aux_sym_module_repeat1, STATE 925), (aux_sym_decorated_definition_repeat1, STATE 3670),
    (sym_identifier, ACTIONS 9), (anon_sym_import, ACTIONS 11), (anon_sym_from, ACTIONS 13),
    (anon_sym_LPAREN, ACTIONS 15), (anon_sym_STAR, ACTIONS 17), (anon_sym_print, ACTIONS 19),
    (anon_sym_comptime, ACTIONS 99), (anon_sym_assert, ACTIONS 23),
    (anon_sym___comptime_assert, ACTIONS 25), (anon_sym_return, ACTIONS 27),
    (anon_sym_del, ACTIONS 29), (anon_sym_raise, ACTIONS 31), (anon_sym_pass, ACTIONS 33),
    (anon_sym_break, ACTIONS 35), (anon_sym_continue, ACTIONS 37),
    (anon_sym___extension, ACTIONS 101), (anon_sym___mlir_region, ACTIONS 103),
    (anon_sym_if, ACTIONS 105), (anon_sym_match, ACTIONS 107), (anon_sym_async, ACTIONS 109),
    (anon_sym_for, ACTIONS 111), (anon_sym_while, ACTIONS 113), (anon_sym_try, ACTIONS 115),
    (anon_sym_with, ACTIONS 117), (anon_sym_def, ACTIONS 119), (anon_sym_fn, ACTIONS 119),
    (anon_sym_LBRACK, ACTIONS 59), (anon_sym_LBRACE, ACTIONS 61), (anon_sym_global, ACTIONS 63),
    (anon_sym_nonlocal, ACTIONS 65), (anon_sym_exec, ACTIONS 67), (anon_sym_type, ACTIONS 69),
    (anon_sym_class, ACTIONS 121), (anon_sym_struct, ACTIONS 121), (anon_sym_mut, ACTIONS 73),
    (anon_sym_out, ACTIONS 73), (anon_sym_trait, ACTIONS 123), (anon_sym_AT, ACTIONS 77),
    (anon_sym_DASH, ACTIONS 79), (anon_sym_PLUS, ACTIONS 79), (anon_sym_ref, ACTIONS 81),
    (anon_sym_var, ACTIONS 81), (anon_sym_not, ACTIONS 83), (anon_sym_TILDE, ACTIONS 79),
    (anon_sym_lambda, ACTIONS 85), (anon_sym_yield, ACTIONS 87), (sym_ellipsis, ACTIONS 89),
    (anon_sym___mlir_type, ACTIONS 91), (sym_integer, ACTIONS 93), (sym_float, ACTIONS 89),
    (anon_sym_await, ACTIONS 95), (sym_true, ACTIONS 93), (sym_false, ACTIONS 93),
    (sym_none, ACTIONS 93), (sym_comment, ACTIONS 3), (sym_line_continuation, ACTIONS 3),
    (sym__dedent, ACTIONS 129), (sym_string_start, ACTIONS 97)]"

definition parse_table_228 :: "(nat \<times> nat) list" where "parse_table_228 = [
    (sym__statement, STATE 925), (sym__simple_statements, STATE 925),
    (sym_import_statement, STATE 11814), (sym_future_import_statement, STATE 11814),
    (sym_import_from_statement, STATE 11814), (sym_print_statement, STATE 11814),
    (sym_assert_statement, STATE 11814), (sym_comptime_assert_statement, STATE 11814),
    (sym_expression_statement, STATE 11814), (sym_tuple_expression, STATE 12425),
    (sym_named_expression, STATE 7969), (sym__named_expression_lhs, STATE 12752),
    (sym_return_statement, STATE 11814), (sym_delete_statement, STATE 11814),
    (sym_raise_statement, STATE 11814), (sym_pass_statement, STATE 11814),
    (sym_break_statement, STATE 11814), (sym_continue_statement, STATE 11814),
    (sym_extension_definition, STATE 925), (sym_mlir_region, STATE 925),
    (sym_comptime_statement, STATE 925), (sym_if_statement, STATE 925),
    (sym_match_statement, STATE 925), (sym_for_statement, STATE 925),
    (sym_while_statement, STATE 925), (sym_try_statement, STATE 925),
    (sym_with_statement, STATE 925), (sym_function_definition, STATE 925),
    (sym_global_statement, STATE 11814), (sym_nonlocal_statement, STATE 11814),
    (sym_exec_statement, STATE 11814), (sym_type_alias_statement, STATE 11814),
    (sym_parameterized_alias_statement, STATE 11814), (sym_class_definition, STATE 925),
    (sym_trait_definition, STATE 925), (sym_decorated_definition, STATE 925),
    (sym_decorator, STATE 3670), (sym_block, STATE 5275), (sym_pattern, STATE 8086),
    (sym_tuple_pattern, STATE 8101), (sym_list_pattern, STATE 8101),
    (sym_list_splat_pattern, STATE 6819), (sym_as_pattern, STATE 7969),
    (sym_expression, STATE 9883), (sym_primary_expression, STATE 7326),
    (sym_comptime_expression, STATE 7017), (sym_transfer_expression, STATE 7017),
    (sym_not_operator, STATE 7969), (sym_boolean_operator, STATE 7969),
    (sym_binary_operator, STATE 7017), (sym_unary_operator, STATE 7017),
    (sym_comparison_operator, STATE 7969), (sym_lambda, STATE 7969),
    (sym_assignment, STATE 12425), (sym_augmented_assignment, STATE 12425),
    (sym_pattern_list, STATE 8578), (sym_yield, STATE 12425), (sym_attribute, STATE 6836),
    (sym_subscript, STATE 6838), (sym_call, STATE 6845), (sym_mlir_type, STATE 7017),
    (sym_list, STATE 7017), (sym_set, STATE 7017), (sym_tuple, STATE 7017),
    (sym_dictionary, STATE 7017), (sym_struct_literal, STATE 7017),
    (sym_list_comprehension, STATE 7017), (sym_dictionary_comprehension, STATE 7017),
    (sym_set_comprehension, STATE 7017), (sym_generator_expression, STATE 7017),
    (sym_parenthesized_expression, STATE 7017), (sym_conditional_expression, STATE 7969),
    (sym_concatenated_string, STATE 7017), (sym_string, STATE 6751), (sym_await, STATE 7017),
    (aux_sym_module_repeat1, STATE 925), (aux_sym_decorated_definition_repeat1, STATE 3670),
    (sym_identifier, ACTIONS 9), (anon_sym_import, ACTIONS 11), (anon_sym_from, ACTIONS 13),
    (anon_sym_LPAREN, ACTIONS 15), (anon_sym_STAR, ACTIONS 17), (anon_sym_print, ACTIONS 19),
    (anon_sym_comptime, ACTIONS 99), (anon_sym_assert, ACTIONS 23),
    (anon_sym___comptime_assert, ACTIONS 25), (anon_sym_return, ACTIONS 27),
    (anon_sym_del, ACTIONS 29), (anon_sym_raise, ACTIONS 31), (anon_sym_pass, ACTIONS 33),
    (anon_sym_break, ACTIONS 35), (anon_sym_continue, ACTIONS 37),
    (anon_sym___extension, ACTIONS 101), (anon_sym___mlir_region, ACTIONS 103),
    (anon_sym_if, ACTIONS 105), (anon_sym_match, ACTIONS 107), (anon_sym_async, ACTIONS 109),
    (anon_sym_for, ACTIONS 111), (anon_sym_while, ACTIONS 113), (anon_sym_try, ACTIONS 115),
    (anon_sym_with, ACTIONS 117), (anon_sym_def, ACTIONS 119), (anon_sym_fn, ACTIONS 119),
    (anon_sym_LBRACK, ACTIONS 59), (anon_sym_LBRACE, ACTIONS 61), (anon_sym_global, ACTIONS 63),
    (anon_sym_nonlocal, ACTIONS 65), (anon_sym_exec, ACTIONS 67), (anon_sym_type, ACTIONS 69),
    (anon_sym_class, ACTIONS 121), (anon_sym_struct, ACTIONS 121), (anon_sym_mut, ACTIONS 73),
    (anon_sym_out, ACTIONS 73), (anon_sym_trait, ACTIONS 123), (anon_sym_AT, ACTIONS 77),
    (anon_sym_DASH, ACTIONS 79), (anon_sym_PLUS, ACTIONS 79), (anon_sym_ref, ACTIONS 81),
    (anon_sym_var, ACTIONS 81), (anon_sym_not, ACTIONS 83), (anon_sym_TILDE, ACTIONS 79),
    (anon_sym_lambda, ACTIONS 85), (anon_sym_yield, ACTIONS 87), (sym_ellipsis, ACTIONS 89),
    (anon_sym___mlir_type, ACTIONS 91), (sym_integer, ACTIONS 93), (sym_float, ACTIONS 89),
    (anon_sym_await, ACTIONS 95), (sym_true, ACTIONS 93), (sym_false, ACTIONS 93),
    (sym_none, ACTIONS 93), (sym_comment, ACTIONS 3), (sym_line_continuation, ACTIONS 3),
    (sym__dedent, ACTIONS 129), (sym_string_start, ACTIONS 97)]"

definition parse_table_229 :: "(nat \<times> nat) list" where "parse_table_229 = [
    (sym__statement, STATE 925), (sym__simple_statements, STATE 925),
    (sym_import_statement, STATE 11814), (sym_future_import_statement, STATE 11814),
    (sym_import_from_statement, STATE 11814), (sym_print_statement, STATE 11814),
    (sym_assert_statement, STATE 11814), (sym_comptime_assert_statement, STATE 11814),
    (sym_expression_statement, STATE 11814), (sym_tuple_expression, STATE 12425),
    (sym_named_expression, STATE 7969), (sym__named_expression_lhs, STATE 12752),
    (sym_return_statement, STATE 11814), (sym_delete_statement, STATE 11814),
    (sym_raise_statement, STATE 11814), (sym_pass_statement, STATE 11814),
    (sym_break_statement, STATE 11814), (sym_continue_statement, STATE 11814),
    (sym_extension_definition, STATE 925), (sym_mlir_region, STATE 925),
    (sym_comptime_statement, STATE 925), (sym_if_statement, STATE 925),
    (sym_match_statement, STATE 925), (sym_for_statement, STATE 925),
    (sym_while_statement, STATE 925), (sym_try_statement, STATE 925),
    (sym_with_statement, STATE 925), (sym_function_definition, STATE 925),
    (sym_global_statement, STATE 11814), (sym_nonlocal_statement, STATE 11814),
    (sym_exec_statement, STATE 11814), (sym_type_alias_statement, STATE 11814),
    (sym_parameterized_alias_statement, STATE 11814), (sym_class_definition, STATE 925),
    (sym_trait_definition, STATE 925), (sym_decorated_definition, STATE 925),
    (sym_decorator, STATE 3670), (sym_block, STATE 5279), (sym_pattern, STATE 8086),
    (sym_tuple_pattern, STATE 8101), (sym_list_pattern, STATE 8101),
    (sym_list_splat_pattern, STATE 6819), (sym_as_pattern, STATE 7969),
    (sym_expression, STATE 9883), (sym_primary_expression, STATE 7326),
    (sym_comptime_expression, STATE 7017), (sym_transfer_expression, STATE 7017),
    (sym_not_operator, STATE 7969), (sym_boolean_operator, STATE 7969),
    (sym_binary_operator, STATE 7017), (sym_unary_operator, STATE 7017),
    (sym_comparison_operator, STATE 7969), (sym_lambda, STATE 7969),
    (sym_assignment, STATE 12425), (sym_augmented_assignment, STATE 12425),
    (sym_pattern_list, STATE 8578), (sym_yield, STATE 12425), (sym_attribute, STATE 6836),
    (sym_subscript, STATE 6838), (sym_call, STATE 6845), (sym_mlir_type, STATE 7017),
    (sym_list, STATE 7017), (sym_set, STATE 7017), (sym_tuple, STATE 7017),
    (sym_dictionary, STATE 7017), (sym_struct_literal, STATE 7017),
    (sym_list_comprehension, STATE 7017), (sym_dictionary_comprehension, STATE 7017),
    (sym_set_comprehension, STATE 7017), (sym_generator_expression, STATE 7017),
    (sym_parenthesized_expression, STATE 7017), (sym_conditional_expression, STATE 7969),
    (sym_concatenated_string, STATE 7017), (sym_string, STATE 6751), (sym_await, STATE 7017),
    (aux_sym_module_repeat1, STATE 925), (aux_sym_decorated_definition_repeat1, STATE 3670),
    (sym_identifier, ACTIONS 9), (anon_sym_import, ACTIONS 11), (anon_sym_from, ACTIONS 13),
    (anon_sym_LPAREN, ACTIONS 15), (anon_sym_STAR, ACTIONS 17), (anon_sym_print, ACTIONS 19),
    (anon_sym_comptime, ACTIONS 99), (anon_sym_assert, ACTIONS 23),
    (anon_sym___comptime_assert, ACTIONS 25), (anon_sym_return, ACTIONS 27),
    (anon_sym_del, ACTIONS 29), (anon_sym_raise, ACTIONS 31), (anon_sym_pass, ACTIONS 33),
    (anon_sym_break, ACTIONS 35), (anon_sym_continue, ACTIONS 37),
    (anon_sym___extension, ACTIONS 101), (anon_sym___mlir_region, ACTIONS 103),
    (anon_sym_if, ACTIONS 105), (anon_sym_match, ACTIONS 107), (anon_sym_async, ACTIONS 109),
    (anon_sym_for, ACTIONS 111), (anon_sym_while, ACTIONS 113), (anon_sym_try, ACTIONS 115),
    (anon_sym_with, ACTIONS 117), (anon_sym_def, ACTIONS 119), (anon_sym_fn, ACTIONS 119),
    (anon_sym_LBRACK, ACTIONS 59), (anon_sym_LBRACE, ACTIONS 61), (anon_sym_global, ACTIONS 63),
    (anon_sym_nonlocal, ACTIONS 65), (anon_sym_exec, ACTIONS 67), (anon_sym_type, ACTIONS 69),
    (anon_sym_class, ACTIONS 121), (anon_sym_struct, ACTIONS 121), (anon_sym_mut, ACTIONS 73),
    (anon_sym_out, ACTIONS 73), (anon_sym_trait, ACTIONS 123), (anon_sym_AT, ACTIONS 77),
    (anon_sym_DASH, ACTIONS 79), (anon_sym_PLUS, ACTIONS 79), (anon_sym_ref, ACTIONS 81),
    (anon_sym_var, ACTIONS 81), (anon_sym_not, ACTIONS 83), (anon_sym_TILDE, ACTIONS 79),
    (anon_sym_lambda, ACTIONS 85), (anon_sym_yield, ACTIONS 87), (sym_ellipsis, ACTIONS 89),
    (anon_sym___mlir_type, ACTIONS 91), (sym_integer, ACTIONS 93), (sym_float, ACTIONS 89),
    (anon_sym_await, ACTIONS 95), (sym_true, ACTIONS 93), (sym_false, ACTIONS 93),
    (sym_none, ACTIONS 93), (sym_comment, ACTIONS 3), (sym_line_continuation, ACTIONS 3),
    (sym__dedent, ACTIONS 129), (sym_string_start, ACTIONS 97)]"

definition parse_table_230 :: "(nat \<times> nat) list" where "parse_table_230 = [
    (sym__statement, STATE 925), (sym__simple_statements, STATE 925),
    (sym_import_statement, STATE 11814), (sym_future_import_statement, STATE 11814),
    (sym_import_from_statement, STATE 11814), (sym_print_statement, STATE 11814),
    (sym_assert_statement, STATE 11814), (sym_comptime_assert_statement, STATE 11814),
    (sym_expression_statement, STATE 11814), (sym_tuple_expression, STATE 12425),
    (sym_named_expression, STATE 7969), (sym__named_expression_lhs, STATE 12752),
    (sym_return_statement, STATE 11814), (sym_delete_statement, STATE 11814),
    (sym_raise_statement, STATE 11814), (sym_pass_statement, STATE 11814),
    (sym_break_statement, STATE 11814), (sym_continue_statement, STATE 11814),
    (sym_extension_definition, STATE 925), (sym_mlir_region, STATE 925),
    (sym_comptime_statement, STATE 925), (sym_if_statement, STATE 925),
    (sym_match_statement, STATE 925), (sym_for_statement, STATE 925),
    (sym_while_statement, STATE 925), (sym_try_statement, STATE 925),
    (sym_with_statement, STATE 925), (sym_function_definition, STATE 925),
    (sym_global_statement, STATE 11814), (sym_nonlocal_statement, STATE 11814),
    (sym_exec_statement, STATE 11814), (sym_type_alias_statement, STATE 11814),
    (sym_parameterized_alias_statement, STATE 11814), (sym_class_definition, STATE 925),
    (sym_trait_definition, STATE 925), (sym_decorated_definition, STATE 925),
    (sym_decorator, STATE 3670), (sym_block, STATE 5282), (sym_pattern, STATE 8086),
    (sym_tuple_pattern, STATE 8101), (sym_list_pattern, STATE 8101),
    (sym_list_splat_pattern, STATE 6819), (sym_as_pattern, STATE 7969),
    (sym_expression, STATE 9883), (sym_primary_expression, STATE 7326),
    (sym_comptime_expression, STATE 7017), (sym_transfer_expression, STATE 7017),
    (sym_not_operator, STATE 7969), (sym_boolean_operator, STATE 7969),
    (sym_binary_operator, STATE 7017), (sym_unary_operator, STATE 7017),
    (sym_comparison_operator, STATE 7969), (sym_lambda, STATE 7969),
    (sym_assignment, STATE 12425), (sym_augmented_assignment, STATE 12425),
    (sym_pattern_list, STATE 8578), (sym_yield, STATE 12425), (sym_attribute, STATE 6836),
    (sym_subscript, STATE 6838), (sym_call, STATE 6845), (sym_mlir_type, STATE 7017),
    (sym_list, STATE 7017), (sym_set, STATE 7017), (sym_tuple, STATE 7017),
    (sym_dictionary, STATE 7017), (sym_struct_literal, STATE 7017),
    (sym_list_comprehension, STATE 7017), (sym_dictionary_comprehension, STATE 7017),
    (sym_set_comprehension, STATE 7017), (sym_generator_expression, STATE 7017),
    (sym_parenthesized_expression, STATE 7017), (sym_conditional_expression, STATE 7969),
    (sym_concatenated_string, STATE 7017), (sym_string, STATE 6751), (sym_await, STATE 7017),
    (aux_sym_module_repeat1, STATE 925), (aux_sym_decorated_definition_repeat1, STATE 3670),
    (sym_identifier, ACTIONS 9), (anon_sym_import, ACTIONS 11), (anon_sym_from, ACTIONS 13),
    (anon_sym_LPAREN, ACTIONS 15), (anon_sym_STAR, ACTIONS 17), (anon_sym_print, ACTIONS 19),
    (anon_sym_comptime, ACTIONS 99), (anon_sym_assert, ACTIONS 23),
    (anon_sym___comptime_assert, ACTIONS 25), (anon_sym_return, ACTIONS 27),
    (anon_sym_del, ACTIONS 29), (anon_sym_raise, ACTIONS 31), (anon_sym_pass, ACTIONS 33),
    (anon_sym_break, ACTIONS 35), (anon_sym_continue, ACTIONS 37),
    (anon_sym___extension, ACTIONS 101), (anon_sym___mlir_region, ACTIONS 103),
    (anon_sym_if, ACTIONS 105), (anon_sym_match, ACTIONS 107), (anon_sym_async, ACTIONS 109),
    (anon_sym_for, ACTIONS 111), (anon_sym_while, ACTIONS 113), (anon_sym_try, ACTIONS 115),
    (anon_sym_with, ACTIONS 117), (anon_sym_def, ACTIONS 119), (anon_sym_fn, ACTIONS 119),
    (anon_sym_LBRACK, ACTIONS 59), (anon_sym_LBRACE, ACTIONS 61), (anon_sym_global, ACTIONS 63),
    (anon_sym_nonlocal, ACTIONS 65), (anon_sym_exec, ACTIONS 67), (anon_sym_type, ACTIONS 69),
    (anon_sym_class, ACTIONS 121), (anon_sym_struct, ACTIONS 121), (anon_sym_mut, ACTIONS 73),
    (anon_sym_out, ACTIONS 73), (anon_sym_trait, ACTIONS 123), (anon_sym_AT, ACTIONS 77),
    (anon_sym_DASH, ACTIONS 79), (anon_sym_PLUS, ACTIONS 79), (anon_sym_ref, ACTIONS 81),
    (anon_sym_var, ACTIONS 81), (anon_sym_not, ACTIONS 83), (anon_sym_TILDE, ACTIONS 79),
    (anon_sym_lambda, ACTIONS 85), (anon_sym_yield, ACTIONS 87), (sym_ellipsis, ACTIONS 89),
    (anon_sym___mlir_type, ACTIONS 91), (sym_integer, ACTIONS 93), (sym_float, ACTIONS 89),
    (anon_sym_await, ACTIONS 95), (sym_true, ACTIONS 93), (sym_false, ACTIONS 93),
    (sym_none, ACTIONS 93), (sym_comment, ACTIONS 3), (sym_line_continuation, ACTIONS 3),
    (sym__dedent, ACTIONS 129), (sym_string_start, ACTIONS 97)]"

definition parse_table_231 :: "(nat \<times> nat) list" where "parse_table_231 = [
    (sym__statement, STATE 925), (sym__simple_statements, STATE 925),
    (sym_import_statement, STATE 11814), (sym_future_import_statement, STATE 11814),
    (sym_import_from_statement, STATE 11814), (sym_print_statement, STATE 11814),
    (sym_assert_statement, STATE 11814), (sym_comptime_assert_statement, STATE 11814),
    (sym_expression_statement, STATE 11814), (sym_tuple_expression, STATE 12425),
    (sym_named_expression, STATE 7969), (sym__named_expression_lhs, STATE 12752),
    (sym_return_statement, STATE 11814), (sym_delete_statement, STATE 11814),
    (sym_raise_statement, STATE 11814), (sym_pass_statement, STATE 11814),
    (sym_break_statement, STATE 11814), (sym_continue_statement, STATE 11814),
    (sym_extension_definition, STATE 925), (sym_mlir_region, STATE 925),
    (sym_comptime_statement, STATE 925), (sym_if_statement, STATE 925),
    (sym_match_statement, STATE 925), (sym_for_statement, STATE 925),
    (sym_while_statement, STATE 925), (sym_try_statement, STATE 925),
    (sym_with_statement, STATE 925), (sym_function_definition, STATE 925),
    (sym_global_statement, STATE 11814), (sym_nonlocal_statement, STATE 11814),
    (sym_exec_statement, STATE 11814), (sym_type_alias_statement, STATE 11814),
    (sym_parameterized_alias_statement, STATE 11814), (sym_class_definition, STATE 925),
    (sym_trait_definition, STATE 925), (sym_decorated_definition, STATE 925),
    (sym_decorator, STATE 3670), (sym_block, STATE 5294), (sym_pattern, STATE 8086),
    (sym_tuple_pattern, STATE 8101), (sym_list_pattern, STATE 8101),
    (sym_list_splat_pattern, STATE 6819), (sym_as_pattern, STATE 7969),
    (sym_expression, STATE 9883), (sym_primary_expression, STATE 7326),
    (sym_comptime_expression, STATE 7017), (sym_transfer_expression, STATE 7017),
    (sym_not_operator, STATE 7969), (sym_boolean_operator, STATE 7969),
    (sym_binary_operator, STATE 7017), (sym_unary_operator, STATE 7017),
    (sym_comparison_operator, STATE 7969), (sym_lambda, STATE 7969),
    (sym_assignment, STATE 12425), (sym_augmented_assignment, STATE 12425),
    (sym_pattern_list, STATE 8578), (sym_yield, STATE 12425), (sym_attribute, STATE 6836),
    (sym_subscript, STATE 6838), (sym_call, STATE 6845), (sym_mlir_type, STATE 7017),
    (sym_list, STATE 7017), (sym_set, STATE 7017), (sym_tuple, STATE 7017),
    (sym_dictionary, STATE 7017), (sym_struct_literal, STATE 7017),
    (sym_list_comprehension, STATE 7017), (sym_dictionary_comprehension, STATE 7017),
    (sym_set_comprehension, STATE 7017), (sym_generator_expression, STATE 7017),
    (sym_parenthesized_expression, STATE 7017), (sym_conditional_expression, STATE 7969),
    (sym_concatenated_string, STATE 7017), (sym_string, STATE 6751), (sym_await, STATE 7017),
    (aux_sym_module_repeat1, STATE 925), (aux_sym_decorated_definition_repeat1, STATE 3670),
    (sym_identifier, ACTIONS 9), (anon_sym_import, ACTIONS 11), (anon_sym_from, ACTIONS 13),
    (anon_sym_LPAREN, ACTIONS 15), (anon_sym_STAR, ACTIONS 17), (anon_sym_print, ACTIONS 19),
    (anon_sym_comptime, ACTIONS 99), (anon_sym_assert, ACTIONS 23),
    (anon_sym___comptime_assert, ACTIONS 25), (anon_sym_return, ACTIONS 27),
    (anon_sym_del, ACTIONS 29), (anon_sym_raise, ACTIONS 31), (anon_sym_pass, ACTIONS 33),
    (anon_sym_break, ACTIONS 35), (anon_sym_continue, ACTIONS 37),
    (anon_sym___extension, ACTIONS 101), (anon_sym___mlir_region, ACTIONS 103),
    (anon_sym_if, ACTIONS 105), (anon_sym_match, ACTIONS 107), (anon_sym_async, ACTIONS 109),
    (anon_sym_for, ACTIONS 111), (anon_sym_while, ACTIONS 113), (anon_sym_try, ACTIONS 115),
    (anon_sym_with, ACTIONS 117), (anon_sym_def, ACTIONS 119), (anon_sym_fn, ACTIONS 119),
    (anon_sym_LBRACK, ACTIONS 59), (anon_sym_LBRACE, ACTIONS 61), (anon_sym_global, ACTIONS 63),
    (anon_sym_nonlocal, ACTIONS 65), (anon_sym_exec, ACTIONS 67), (anon_sym_type, ACTIONS 69),
    (anon_sym_class, ACTIONS 121), (anon_sym_struct, ACTIONS 121), (anon_sym_mut, ACTIONS 73),
    (anon_sym_out, ACTIONS 73), (anon_sym_trait, ACTIONS 123), (anon_sym_AT, ACTIONS 77),
    (anon_sym_DASH, ACTIONS 79), (anon_sym_PLUS, ACTIONS 79), (anon_sym_ref, ACTIONS 81),
    (anon_sym_var, ACTIONS 81), (anon_sym_not, ACTIONS 83), (anon_sym_TILDE, ACTIONS 79),
    (anon_sym_lambda, ACTIONS 85), (anon_sym_yield, ACTIONS 87), (sym_ellipsis, ACTIONS 89),
    (anon_sym___mlir_type, ACTIONS 91), (sym_integer, ACTIONS 93), (sym_float, ACTIONS 89),
    (anon_sym_await, ACTIONS 95), (sym_true, ACTIONS 93), (sym_false, ACTIONS 93),
    (sym_none, ACTIONS 93), (sym_comment, ACTIONS 3), (sym_line_continuation, ACTIONS 3),
    (sym__dedent, ACTIONS 129), (sym_string_start, ACTIONS 97)]"

definition parse_table_232 :: "(nat \<times> nat) list" where "parse_table_232 = [
    (sym__statement, STATE 925), (sym__simple_statements, STATE 925),
    (sym_import_statement, STATE 11814), (sym_future_import_statement, STATE 11814),
    (sym_import_from_statement, STATE 11814), (sym_print_statement, STATE 11814),
    (sym_assert_statement, STATE 11814), (sym_comptime_assert_statement, STATE 11814),
    (sym_expression_statement, STATE 11814), (sym_tuple_expression, STATE 12425),
    (sym_named_expression, STATE 7969), (sym__named_expression_lhs, STATE 12752),
    (sym_return_statement, STATE 11814), (sym_delete_statement, STATE 11814),
    (sym_raise_statement, STATE 11814), (sym_pass_statement, STATE 11814),
    (sym_break_statement, STATE 11814), (sym_continue_statement, STATE 11814),
    (sym_extension_definition, STATE 925), (sym_mlir_region, STATE 925),
    (sym_comptime_statement, STATE 925), (sym_if_statement, STATE 925),
    (sym_match_statement, STATE 925), (sym_for_statement, STATE 925),
    (sym_while_statement, STATE 925), (sym_try_statement, STATE 925),
    (sym_with_statement, STATE 925), (sym_function_definition, STATE 925),
    (sym_global_statement, STATE 11814), (sym_nonlocal_statement, STATE 11814),
    (sym_exec_statement, STATE 11814), (sym_type_alias_statement, STATE 11814),
    (sym_parameterized_alias_statement, STATE 11814), (sym_class_definition, STATE 925),
    (sym_trait_definition, STATE 925), (sym_decorated_definition, STATE 925),
    (sym_decorator, STATE 3670), (sym_block, STATE 5298), (sym_pattern, STATE 8086),
    (sym_tuple_pattern, STATE 8101), (sym_list_pattern, STATE 8101),
    (sym_list_splat_pattern, STATE 6819), (sym_as_pattern, STATE 7969),
    (sym_expression, STATE 9883), (sym_primary_expression, STATE 7326),
    (sym_comptime_expression, STATE 7017), (sym_transfer_expression, STATE 7017),
    (sym_not_operator, STATE 7969), (sym_boolean_operator, STATE 7969),
    (sym_binary_operator, STATE 7017), (sym_unary_operator, STATE 7017),
    (sym_comparison_operator, STATE 7969), (sym_lambda, STATE 7969),
    (sym_assignment, STATE 12425), (sym_augmented_assignment, STATE 12425),
    (sym_pattern_list, STATE 8578), (sym_yield, STATE 12425), (sym_attribute, STATE 6836),
    (sym_subscript, STATE 6838), (sym_call, STATE 6845), (sym_mlir_type, STATE 7017),
    (sym_list, STATE 7017), (sym_set, STATE 7017), (sym_tuple, STATE 7017),
    (sym_dictionary, STATE 7017), (sym_struct_literal, STATE 7017),
    (sym_list_comprehension, STATE 7017), (sym_dictionary_comprehension, STATE 7017),
    (sym_set_comprehension, STATE 7017), (sym_generator_expression, STATE 7017),
    (sym_parenthesized_expression, STATE 7017), (sym_conditional_expression, STATE 7969),
    (sym_concatenated_string, STATE 7017), (sym_string, STATE 6751), (sym_await, STATE 7017),
    (aux_sym_module_repeat1, STATE 925), (aux_sym_decorated_definition_repeat1, STATE 3670),
    (sym_identifier, ACTIONS 9), (anon_sym_import, ACTIONS 11), (anon_sym_from, ACTIONS 13),
    (anon_sym_LPAREN, ACTIONS 15), (anon_sym_STAR, ACTIONS 17), (anon_sym_print, ACTIONS 19),
    (anon_sym_comptime, ACTIONS 99), (anon_sym_assert, ACTIONS 23),
    (anon_sym___comptime_assert, ACTIONS 25), (anon_sym_return, ACTIONS 27),
    (anon_sym_del, ACTIONS 29), (anon_sym_raise, ACTIONS 31), (anon_sym_pass, ACTIONS 33),
    (anon_sym_break, ACTIONS 35), (anon_sym_continue, ACTIONS 37),
    (anon_sym___extension, ACTIONS 101), (anon_sym___mlir_region, ACTIONS 103),
    (anon_sym_if, ACTIONS 105), (anon_sym_match, ACTIONS 107), (anon_sym_async, ACTIONS 109),
    (anon_sym_for, ACTIONS 111), (anon_sym_while, ACTIONS 113), (anon_sym_try, ACTIONS 115),
    (anon_sym_with, ACTIONS 117), (anon_sym_def, ACTIONS 119), (anon_sym_fn, ACTIONS 119),
    (anon_sym_LBRACK, ACTIONS 59), (anon_sym_LBRACE, ACTIONS 61), (anon_sym_global, ACTIONS 63),
    (anon_sym_nonlocal, ACTIONS 65), (anon_sym_exec, ACTIONS 67), (anon_sym_type, ACTIONS 69),
    (anon_sym_class, ACTIONS 121), (anon_sym_struct, ACTIONS 121), (anon_sym_mut, ACTIONS 73),
    (anon_sym_out, ACTIONS 73), (anon_sym_trait, ACTIONS 123), (anon_sym_AT, ACTIONS 77),
    (anon_sym_DASH, ACTIONS 79), (anon_sym_PLUS, ACTIONS 79), (anon_sym_ref, ACTIONS 81),
    (anon_sym_var, ACTIONS 81), (anon_sym_not, ACTIONS 83), (anon_sym_TILDE, ACTIONS 79),
    (anon_sym_lambda, ACTIONS 85), (anon_sym_yield, ACTIONS 87), (sym_ellipsis, ACTIONS 89),
    (anon_sym___mlir_type, ACTIONS 91), (sym_integer, ACTIONS 93), (sym_float, ACTIONS 89),
    (anon_sym_await, ACTIONS 95), (sym_true, ACTIONS 93), (sym_false, ACTIONS 93),
    (sym_none, ACTIONS 93), (sym_comment, ACTIONS 3), (sym_line_continuation, ACTIONS 3),
    (sym__dedent, ACTIONS 129), (sym_string_start, ACTIONS 97)]"

definition parse_table_233 :: "(nat \<times> nat) list" where "parse_table_233 = [
    (sym__statement, STATE 925), (sym__simple_statements, STATE 925),
    (sym_import_statement, STATE 11814), (sym_future_import_statement, STATE 11814),
    (sym_import_from_statement, STATE 11814), (sym_print_statement, STATE 11814),
    (sym_assert_statement, STATE 11814), (sym_comptime_assert_statement, STATE 11814),
    (sym_expression_statement, STATE 11814), (sym_tuple_expression, STATE 12425),
    (sym_named_expression, STATE 7969), (sym__named_expression_lhs, STATE 12752),
    (sym_return_statement, STATE 11814), (sym_delete_statement, STATE 11814),
    (sym_raise_statement, STATE 11814), (sym_pass_statement, STATE 11814),
    (sym_break_statement, STATE 11814), (sym_continue_statement, STATE 11814),
    (sym_extension_definition, STATE 925), (sym_mlir_region, STATE 925),
    (sym_comptime_statement, STATE 925), (sym_if_statement, STATE 925),
    (sym_match_statement, STATE 925), (sym_for_statement, STATE 925),
    (sym_while_statement, STATE 925), (sym_try_statement, STATE 925),
    (sym_with_statement, STATE 925), (sym_function_definition, STATE 925),
    (sym_global_statement, STATE 11814), (sym_nonlocal_statement, STATE 11814),
    (sym_exec_statement, STATE 11814), (sym_type_alias_statement, STATE 11814),
    (sym_parameterized_alias_statement, STATE 11814), (sym_class_definition, STATE 925),
    (sym_trait_definition, STATE 925), (sym_decorated_definition, STATE 925),
    (sym_decorator, STATE 3670), (sym_block, STATE 5304), (sym_pattern, STATE 8086),
    (sym_tuple_pattern, STATE 8101), (sym_list_pattern, STATE 8101),
    (sym_list_splat_pattern, STATE 6819), (sym_as_pattern, STATE 7969),
    (sym_expression, STATE 9883), (sym_primary_expression, STATE 7326),
    (sym_comptime_expression, STATE 7017), (sym_transfer_expression, STATE 7017),
    (sym_not_operator, STATE 7969), (sym_boolean_operator, STATE 7969),
    (sym_binary_operator, STATE 7017), (sym_unary_operator, STATE 7017),
    (sym_comparison_operator, STATE 7969), (sym_lambda, STATE 7969),
    (sym_assignment, STATE 12425), (sym_augmented_assignment, STATE 12425),
    (sym_pattern_list, STATE 8578), (sym_yield, STATE 12425), (sym_attribute, STATE 6836),
    (sym_subscript, STATE 6838), (sym_call, STATE 6845), (sym_mlir_type, STATE 7017),
    (sym_list, STATE 7017), (sym_set, STATE 7017), (sym_tuple, STATE 7017),
    (sym_dictionary, STATE 7017), (sym_struct_literal, STATE 7017),
    (sym_list_comprehension, STATE 7017), (sym_dictionary_comprehension, STATE 7017),
    (sym_set_comprehension, STATE 7017), (sym_generator_expression, STATE 7017),
    (sym_parenthesized_expression, STATE 7017), (sym_conditional_expression, STATE 7969),
    (sym_concatenated_string, STATE 7017), (sym_string, STATE 6751), (sym_await, STATE 7017),
    (aux_sym_module_repeat1, STATE 925), (aux_sym_decorated_definition_repeat1, STATE 3670),
    (sym_identifier, ACTIONS 9), (anon_sym_import, ACTIONS 11), (anon_sym_from, ACTIONS 13),
    (anon_sym_LPAREN, ACTIONS 15), (anon_sym_STAR, ACTIONS 17), (anon_sym_print, ACTIONS 19),
    (anon_sym_comptime, ACTIONS 99), (anon_sym_assert, ACTIONS 23),
    (anon_sym___comptime_assert, ACTIONS 25), (anon_sym_return, ACTIONS 27),
    (anon_sym_del, ACTIONS 29), (anon_sym_raise, ACTIONS 31), (anon_sym_pass, ACTIONS 33),
    (anon_sym_break, ACTIONS 35), (anon_sym_continue, ACTIONS 37),
    (anon_sym___extension, ACTIONS 101), (anon_sym___mlir_region, ACTIONS 103),
    (anon_sym_if, ACTIONS 105), (anon_sym_match, ACTIONS 107), (anon_sym_async, ACTIONS 109),
    (anon_sym_for, ACTIONS 111), (anon_sym_while, ACTIONS 113), (anon_sym_try, ACTIONS 115),
    (anon_sym_with, ACTIONS 117), (anon_sym_def, ACTIONS 119), (anon_sym_fn, ACTIONS 119),
    (anon_sym_LBRACK, ACTIONS 59), (anon_sym_LBRACE, ACTIONS 61), (anon_sym_global, ACTIONS 63),
    (anon_sym_nonlocal, ACTIONS 65), (anon_sym_exec, ACTIONS 67), (anon_sym_type, ACTIONS 69),
    (anon_sym_class, ACTIONS 121), (anon_sym_struct, ACTIONS 121), (anon_sym_mut, ACTIONS 73),
    (anon_sym_out, ACTIONS 73), (anon_sym_trait, ACTIONS 123), (anon_sym_AT, ACTIONS 77),
    (anon_sym_DASH, ACTIONS 79), (anon_sym_PLUS, ACTIONS 79), (anon_sym_ref, ACTIONS 81),
    (anon_sym_var, ACTIONS 81), (anon_sym_not, ACTIONS 83), (anon_sym_TILDE, ACTIONS 79),
    (anon_sym_lambda, ACTIONS 85), (anon_sym_yield, ACTIONS 87), (sym_ellipsis, ACTIONS 89),
    (anon_sym___mlir_type, ACTIONS 91), (sym_integer, ACTIONS 93), (sym_float, ACTIONS 89),
    (anon_sym_await, ACTIONS 95), (sym_true, ACTIONS 93), (sym_false, ACTIONS 93),
    (sym_none, ACTIONS 93), (sym_comment, ACTIONS 3), (sym_line_continuation, ACTIONS 3),
    (sym__dedent, ACTIONS 129), (sym_string_start, ACTIONS 97)]"

definition parse_table_234 :: "(nat \<times> nat) list" where "parse_table_234 = [
    (sym__statement, STATE 925), (sym__simple_statements, STATE 925),
    (sym_import_statement, STATE 11814), (sym_future_import_statement, STATE 11814),
    (sym_import_from_statement, STATE 11814), (sym_print_statement, STATE 11814),
    (sym_assert_statement, STATE 11814), (sym_comptime_assert_statement, STATE 11814),
    (sym_expression_statement, STATE 11814), (sym_tuple_expression, STATE 12425),
    (sym_named_expression, STATE 7969), (sym__named_expression_lhs, STATE 12752),
    (sym_return_statement, STATE 11814), (sym_delete_statement, STATE 11814),
    (sym_raise_statement, STATE 11814), (sym_pass_statement, STATE 11814),
    (sym_break_statement, STATE 11814), (sym_continue_statement, STATE 11814),
    (sym_extension_definition, STATE 925), (sym_mlir_region, STATE 925),
    (sym_comptime_statement, STATE 925), (sym_if_statement, STATE 925),
    (sym_match_statement, STATE 925), (sym_for_statement, STATE 925),
    (sym_while_statement, STATE 925), (sym_try_statement, STATE 925),
    (sym_with_statement, STATE 925), (sym_function_definition, STATE 925),
    (sym_global_statement, STATE 11814), (sym_nonlocal_statement, STATE 11814),
    (sym_exec_statement, STATE 11814), (sym_type_alias_statement, STATE 11814),
    (sym_parameterized_alias_statement, STATE 11814), (sym_class_definition, STATE 925),
    (sym_trait_definition, STATE 925), (sym_decorated_definition, STATE 925),
    (sym_decorator, STATE 3670), (sym_block, STATE 5308), (sym_pattern, STATE 8086),
    (sym_tuple_pattern, STATE 8101), (sym_list_pattern, STATE 8101),
    (sym_list_splat_pattern, STATE 6819), (sym_as_pattern, STATE 7969),
    (sym_expression, STATE 9883), (sym_primary_expression, STATE 7326),
    (sym_comptime_expression, STATE 7017), (sym_transfer_expression, STATE 7017),
    (sym_not_operator, STATE 7969), (sym_boolean_operator, STATE 7969),
    (sym_binary_operator, STATE 7017), (sym_unary_operator, STATE 7017),
    (sym_comparison_operator, STATE 7969), (sym_lambda, STATE 7969),
    (sym_assignment, STATE 12425), (sym_augmented_assignment, STATE 12425),
    (sym_pattern_list, STATE 8578), (sym_yield, STATE 12425), (sym_attribute, STATE 6836),
    (sym_subscript, STATE 6838), (sym_call, STATE 6845), (sym_mlir_type, STATE 7017),
    (sym_list, STATE 7017), (sym_set, STATE 7017), (sym_tuple, STATE 7017),
    (sym_dictionary, STATE 7017), (sym_struct_literal, STATE 7017),
    (sym_list_comprehension, STATE 7017), (sym_dictionary_comprehension, STATE 7017),
    (sym_set_comprehension, STATE 7017), (sym_generator_expression, STATE 7017),
    (sym_parenthesized_expression, STATE 7017), (sym_conditional_expression, STATE 7969),
    (sym_concatenated_string, STATE 7017), (sym_string, STATE 6751), (sym_await, STATE 7017),
    (aux_sym_module_repeat1, STATE 925), (aux_sym_decorated_definition_repeat1, STATE 3670),
    (sym_identifier, ACTIONS 9), (anon_sym_import, ACTIONS 11), (anon_sym_from, ACTIONS 13),
    (anon_sym_LPAREN, ACTIONS 15), (anon_sym_STAR, ACTIONS 17), (anon_sym_print, ACTIONS 19),
    (anon_sym_comptime, ACTIONS 99), (anon_sym_assert, ACTIONS 23),
    (anon_sym___comptime_assert, ACTIONS 25), (anon_sym_return, ACTIONS 27),
    (anon_sym_del, ACTIONS 29), (anon_sym_raise, ACTIONS 31), (anon_sym_pass, ACTIONS 33),
    (anon_sym_break, ACTIONS 35), (anon_sym_continue, ACTIONS 37),
    (anon_sym___extension, ACTIONS 101), (anon_sym___mlir_region, ACTIONS 103),
    (anon_sym_if, ACTIONS 105), (anon_sym_match, ACTIONS 107), (anon_sym_async, ACTIONS 109),
    (anon_sym_for, ACTIONS 111), (anon_sym_while, ACTIONS 113), (anon_sym_try, ACTIONS 115),
    (anon_sym_with, ACTIONS 117), (anon_sym_def, ACTIONS 119), (anon_sym_fn, ACTIONS 119),
    (anon_sym_LBRACK, ACTIONS 59), (anon_sym_LBRACE, ACTIONS 61), (anon_sym_global, ACTIONS 63),
    (anon_sym_nonlocal, ACTIONS 65), (anon_sym_exec, ACTIONS 67), (anon_sym_type, ACTIONS 69),
    (anon_sym_class, ACTIONS 121), (anon_sym_struct, ACTIONS 121), (anon_sym_mut, ACTIONS 73),
    (anon_sym_out, ACTIONS 73), (anon_sym_trait, ACTIONS 123), (anon_sym_AT, ACTIONS 77),
    (anon_sym_DASH, ACTIONS 79), (anon_sym_PLUS, ACTIONS 79), (anon_sym_ref, ACTIONS 81),
    (anon_sym_var, ACTIONS 81), (anon_sym_not, ACTIONS 83), (anon_sym_TILDE, ACTIONS 79),
    (anon_sym_lambda, ACTIONS 85), (anon_sym_yield, ACTIONS 87), (sym_ellipsis, ACTIONS 89),
    (anon_sym___mlir_type, ACTIONS 91), (sym_integer, ACTIONS 93), (sym_float, ACTIONS 89),
    (anon_sym_await, ACTIONS 95), (sym_true, ACTIONS 93), (sym_false, ACTIONS 93),
    (sym_none, ACTIONS 93), (sym_comment, ACTIONS 3), (sym_line_continuation, ACTIONS 3),
    (sym__dedent, ACTIONS 129), (sym_string_start, ACTIONS 97)]"

definition parse_table_235 :: "(nat \<times> nat) list" where "parse_table_235 = [
    (sym__statement, STATE 925), (sym__simple_statements, STATE 925),
    (sym_import_statement, STATE 11814), (sym_future_import_statement, STATE 11814),
    (sym_import_from_statement, STATE 11814), (sym_print_statement, STATE 11814),
    (sym_assert_statement, STATE 11814), (sym_comptime_assert_statement, STATE 11814),
    (sym_expression_statement, STATE 11814), (sym_tuple_expression, STATE 12425),
    (sym_named_expression, STATE 7969), (sym__named_expression_lhs, STATE 12752),
    (sym_return_statement, STATE 11814), (sym_delete_statement, STATE 11814),
    (sym_raise_statement, STATE 11814), (sym_pass_statement, STATE 11814),
    (sym_break_statement, STATE 11814), (sym_continue_statement, STATE 11814),
    (sym_extension_definition, STATE 925), (sym_mlir_region, STATE 925),
    (sym_comptime_statement, STATE 925), (sym_if_statement, STATE 925),
    (sym_match_statement, STATE 925), (sym_for_statement, STATE 925),
    (sym_while_statement, STATE 925), (sym_try_statement, STATE 925),
    (sym_with_statement, STATE 925), (sym_function_definition, STATE 925),
    (sym_global_statement, STATE 11814), (sym_nonlocal_statement, STATE 11814),
    (sym_exec_statement, STATE 11814), (sym_type_alias_statement, STATE 11814),
    (sym_parameterized_alias_statement, STATE 11814), (sym_class_definition, STATE 925),
    (sym_trait_definition, STATE 925), (sym_decorated_definition, STATE 925),
    (sym_decorator, STATE 3670), (sym_block, STATE 5311), (sym_pattern, STATE 8086),
    (sym_tuple_pattern, STATE 8101), (sym_list_pattern, STATE 8101),
    (sym_list_splat_pattern, STATE 6819), (sym_as_pattern, STATE 7969),
    (sym_expression, STATE 9883), (sym_primary_expression, STATE 7326),
    (sym_comptime_expression, STATE 7017), (sym_transfer_expression, STATE 7017),
    (sym_not_operator, STATE 7969), (sym_boolean_operator, STATE 7969),
    (sym_binary_operator, STATE 7017), (sym_unary_operator, STATE 7017),
    (sym_comparison_operator, STATE 7969), (sym_lambda, STATE 7969),
    (sym_assignment, STATE 12425), (sym_augmented_assignment, STATE 12425),
    (sym_pattern_list, STATE 8578), (sym_yield, STATE 12425), (sym_attribute, STATE 6836),
    (sym_subscript, STATE 6838), (sym_call, STATE 6845), (sym_mlir_type, STATE 7017),
    (sym_list, STATE 7017), (sym_set, STATE 7017), (sym_tuple, STATE 7017),
    (sym_dictionary, STATE 7017), (sym_struct_literal, STATE 7017),
    (sym_list_comprehension, STATE 7017), (sym_dictionary_comprehension, STATE 7017),
    (sym_set_comprehension, STATE 7017), (sym_generator_expression, STATE 7017),
    (sym_parenthesized_expression, STATE 7017), (sym_conditional_expression, STATE 7969),
    (sym_concatenated_string, STATE 7017), (sym_string, STATE 6751), (sym_await, STATE 7017),
    (aux_sym_module_repeat1, STATE 925), (aux_sym_decorated_definition_repeat1, STATE 3670),
    (sym_identifier, ACTIONS 9), (anon_sym_import, ACTIONS 11), (anon_sym_from, ACTIONS 13),
    (anon_sym_LPAREN, ACTIONS 15), (anon_sym_STAR, ACTIONS 17), (anon_sym_print, ACTIONS 19),
    (anon_sym_comptime, ACTIONS 99), (anon_sym_assert, ACTIONS 23),
    (anon_sym___comptime_assert, ACTIONS 25), (anon_sym_return, ACTIONS 27),
    (anon_sym_del, ACTIONS 29), (anon_sym_raise, ACTIONS 31), (anon_sym_pass, ACTIONS 33),
    (anon_sym_break, ACTIONS 35), (anon_sym_continue, ACTIONS 37),
    (anon_sym___extension, ACTIONS 101), (anon_sym___mlir_region, ACTIONS 103),
    (anon_sym_if, ACTIONS 105), (anon_sym_match, ACTIONS 107), (anon_sym_async, ACTIONS 109),
    (anon_sym_for, ACTIONS 111), (anon_sym_while, ACTIONS 113), (anon_sym_try, ACTIONS 115),
    (anon_sym_with, ACTIONS 117), (anon_sym_def, ACTIONS 119), (anon_sym_fn, ACTIONS 119),
    (anon_sym_LBRACK, ACTIONS 59), (anon_sym_LBRACE, ACTIONS 61), (anon_sym_global, ACTIONS 63),
    (anon_sym_nonlocal, ACTIONS 65), (anon_sym_exec, ACTIONS 67), (anon_sym_type, ACTIONS 69),
    (anon_sym_class, ACTIONS 121), (anon_sym_struct, ACTIONS 121), (anon_sym_mut, ACTIONS 73),
    (anon_sym_out, ACTIONS 73), (anon_sym_trait, ACTIONS 123), (anon_sym_AT, ACTIONS 77),
    (anon_sym_DASH, ACTIONS 79), (anon_sym_PLUS, ACTIONS 79), (anon_sym_ref, ACTIONS 81),
    (anon_sym_var, ACTIONS 81), (anon_sym_not, ACTIONS 83), (anon_sym_TILDE, ACTIONS 79),
    (anon_sym_lambda, ACTIONS 85), (anon_sym_yield, ACTIONS 87), (sym_ellipsis, ACTIONS 89),
    (anon_sym___mlir_type, ACTIONS 91), (sym_integer, ACTIONS 93), (sym_float, ACTIONS 89),
    (anon_sym_await, ACTIONS 95), (sym_true, ACTIONS 93), (sym_false, ACTIONS 93),
    (sym_none, ACTIONS 93), (sym_comment, ACTIONS 3), (sym_line_continuation, ACTIONS 3),
    (sym__dedent, ACTIONS 129), (sym_string_start, ACTIONS 97)]"

definition parse_table_236 :: "(nat \<times> nat) list" where "parse_table_236 = [
    (sym__statement, STATE 925), (sym__simple_statements, STATE 925),
    (sym_import_statement, STATE 11814), (sym_future_import_statement, STATE 11814),
    (sym_import_from_statement, STATE 11814), (sym_print_statement, STATE 11814),
    (sym_assert_statement, STATE 11814), (sym_comptime_assert_statement, STATE 11814),
    (sym_expression_statement, STATE 11814), (sym_tuple_expression, STATE 12425),
    (sym_named_expression, STATE 7969), (sym__named_expression_lhs, STATE 12752),
    (sym_return_statement, STATE 11814), (sym_delete_statement, STATE 11814),
    (sym_raise_statement, STATE 11814), (sym_pass_statement, STATE 11814),
    (sym_break_statement, STATE 11814), (sym_continue_statement, STATE 11814),
    (sym_extension_definition, STATE 925), (sym_mlir_region, STATE 925),
    (sym_comptime_statement, STATE 925), (sym_if_statement, STATE 925),
    (sym_match_statement, STATE 925), (sym_for_statement, STATE 925),
    (sym_while_statement, STATE 925), (sym_try_statement, STATE 925),
    (sym_with_statement, STATE 925), (sym_function_definition, STATE 925),
    (sym_global_statement, STATE 11814), (sym_nonlocal_statement, STATE 11814),
    (sym_exec_statement, STATE 11814), (sym_type_alias_statement, STATE 11814),
    (sym_parameterized_alias_statement, STATE 11814), (sym_class_definition, STATE 925),
    (sym_trait_definition, STATE 925), (sym_decorated_definition, STATE 925),
    (sym_decorator, STATE 3670), (sym_block, STATE 5323), (sym_pattern, STATE 8086),
    (sym_tuple_pattern, STATE 8101), (sym_list_pattern, STATE 8101),
    (sym_list_splat_pattern, STATE 6819), (sym_as_pattern, STATE 7969),
    (sym_expression, STATE 9883), (sym_primary_expression, STATE 7326),
    (sym_comptime_expression, STATE 7017), (sym_transfer_expression, STATE 7017),
    (sym_not_operator, STATE 7969), (sym_boolean_operator, STATE 7969),
    (sym_binary_operator, STATE 7017), (sym_unary_operator, STATE 7017),
    (sym_comparison_operator, STATE 7969), (sym_lambda, STATE 7969),
    (sym_assignment, STATE 12425), (sym_augmented_assignment, STATE 12425),
    (sym_pattern_list, STATE 8578), (sym_yield, STATE 12425), (sym_attribute, STATE 6836),
    (sym_subscript, STATE 6838), (sym_call, STATE 6845), (sym_mlir_type, STATE 7017),
    (sym_list, STATE 7017), (sym_set, STATE 7017), (sym_tuple, STATE 7017),
    (sym_dictionary, STATE 7017), (sym_struct_literal, STATE 7017),
    (sym_list_comprehension, STATE 7017), (sym_dictionary_comprehension, STATE 7017),
    (sym_set_comprehension, STATE 7017), (sym_generator_expression, STATE 7017),
    (sym_parenthesized_expression, STATE 7017), (sym_conditional_expression, STATE 7969),
    (sym_concatenated_string, STATE 7017), (sym_string, STATE 6751), (sym_await, STATE 7017),
    (aux_sym_module_repeat1, STATE 925), (aux_sym_decorated_definition_repeat1, STATE 3670),
    (sym_identifier, ACTIONS 9), (anon_sym_import, ACTIONS 11), (anon_sym_from, ACTIONS 13),
    (anon_sym_LPAREN, ACTIONS 15), (anon_sym_STAR, ACTIONS 17), (anon_sym_print, ACTIONS 19),
    (anon_sym_comptime, ACTIONS 99), (anon_sym_assert, ACTIONS 23),
    (anon_sym___comptime_assert, ACTIONS 25), (anon_sym_return, ACTIONS 27),
    (anon_sym_del, ACTIONS 29), (anon_sym_raise, ACTIONS 31), (anon_sym_pass, ACTIONS 33),
    (anon_sym_break, ACTIONS 35), (anon_sym_continue, ACTIONS 37),
    (anon_sym___extension, ACTIONS 101), (anon_sym___mlir_region, ACTIONS 103),
    (anon_sym_if, ACTIONS 105), (anon_sym_match, ACTIONS 107), (anon_sym_async, ACTIONS 109),
    (anon_sym_for, ACTIONS 111), (anon_sym_while, ACTIONS 113), (anon_sym_try, ACTIONS 115),
    (anon_sym_with, ACTIONS 117), (anon_sym_def, ACTIONS 119), (anon_sym_fn, ACTIONS 119),
    (anon_sym_LBRACK, ACTIONS 59), (anon_sym_LBRACE, ACTIONS 61), (anon_sym_global, ACTIONS 63),
    (anon_sym_nonlocal, ACTIONS 65), (anon_sym_exec, ACTIONS 67), (anon_sym_type, ACTIONS 69),
    (anon_sym_class, ACTIONS 121), (anon_sym_struct, ACTIONS 121), (anon_sym_mut, ACTIONS 73),
    (anon_sym_out, ACTIONS 73), (anon_sym_trait, ACTIONS 123), (anon_sym_AT, ACTIONS 77),
    (anon_sym_DASH, ACTIONS 79), (anon_sym_PLUS, ACTIONS 79), (anon_sym_ref, ACTIONS 81),
    (anon_sym_var, ACTIONS 81), (anon_sym_not, ACTIONS 83), (anon_sym_TILDE, ACTIONS 79),
    (anon_sym_lambda, ACTIONS 85), (anon_sym_yield, ACTIONS 87), (sym_ellipsis, ACTIONS 89),
    (anon_sym___mlir_type, ACTIONS 91), (sym_integer, ACTIONS 93), (sym_float, ACTIONS 89),
    (anon_sym_await, ACTIONS 95), (sym_true, ACTIONS 93), (sym_false, ACTIONS 93),
    (sym_none, ACTIONS 93), (sym_comment, ACTIONS 3), (sym_line_continuation, ACTIONS 3),
    (sym__dedent, ACTIONS 129), (sym_string_start, ACTIONS 97)]"

definition parse_table_237 :: "(nat \<times> nat) list" where "parse_table_237 = [
    (sym__statement, STATE 925), (sym__simple_statements, STATE 925),
    (sym_import_statement, STATE 11814), (sym_future_import_statement, STATE 11814),
    (sym_import_from_statement, STATE 11814), (sym_print_statement, STATE 11814),
    (sym_assert_statement, STATE 11814), (sym_comptime_assert_statement, STATE 11814),
    (sym_expression_statement, STATE 11814), (sym_tuple_expression, STATE 12425),
    (sym_named_expression, STATE 7969), (sym__named_expression_lhs, STATE 12752),
    (sym_return_statement, STATE 11814), (sym_delete_statement, STATE 11814),
    (sym_raise_statement, STATE 11814), (sym_pass_statement, STATE 11814),
    (sym_break_statement, STATE 11814), (sym_continue_statement, STATE 11814),
    (sym_extension_definition, STATE 925), (sym_mlir_region, STATE 925),
    (sym_comptime_statement, STATE 925), (sym_if_statement, STATE 925),
    (sym_match_statement, STATE 925), (sym_for_statement, STATE 925),
    (sym_while_statement, STATE 925), (sym_try_statement, STATE 925),
    (sym_with_statement, STATE 925), (sym_function_definition, STATE 925),
    (sym_global_statement, STATE 11814), (sym_nonlocal_statement, STATE 11814),
    (sym_exec_statement, STATE 11814), (sym_type_alias_statement, STATE 11814),
    (sym_parameterized_alias_statement, STATE 11814), (sym_class_definition, STATE 925),
    (sym_trait_definition, STATE 925), (sym_decorated_definition, STATE 925),
    (sym_decorator, STATE 3670), (sym_block, STATE 5325), (sym_pattern, STATE 8086),
    (sym_tuple_pattern, STATE 8101), (sym_list_pattern, STATE 8101),
    (sym_list_splat_pattern, STATE 6819), (sym_as_pattern, STATE 7969),
    (sym_expression, STATE 9883), (sym_primary_expression, STATE 7326),
    (sym_comptime_expression, STATE 7017), (sym_transfer_expression, STATE 7017),
    (sym_not_operator, STATE 7969), (sym_boolean_operator, STATE 7969),
    (sym_binary_operator, STATE 7017), (sym_unary_operator, STATE 7017),
    (sym_comparison_operator, STATE 7969), (sym_lambda, STATE 7969),
    (sym_assignment, STATE 12425), (sym_augmented_assignment, STATE 12425),
    (sym_pattern_list, STATE 8578), (sym_yield, STATE 12425), (sym_attribute, STATE 6836),
    (sym_subscript, STATE 6838), (sym_call, STATE 6845), (sym_mlir_type, STATE 7017),
    (sym_list, STATE 7017), (sym_set, STATE 7017), (sym_tuple, STATE 7017),
    (sym_dictionary, STATE 7017), (sym_struct_literal, STATE 7017),
    (sym_list_comprehension, STATE 7017), (sym_dictionary_comprehension, STATE 7017),
    (sym_set_comprehension, STATE 7017), (sym_generator_expression, STATE 7017),
    (sym_parenthesized_expression, STATE 7017), (sym_conditional_expression, STATE 7969),
    (sym_concatenated_string, STATE 7017), (sym_string, STATE 6751), (sym_await, STATE 7017),
    (aux_sym_module_repeat1, STATE 925), (aux_sym_decorated_definition_repeat1, STATE 3670),
    (sym_identifier, ACTIONS 9), (anon_sym_import, ACTIONS 11), (anon_sym_from, ACTIONS 13),
    (anon_sym_LPAREN, ACTIONS 15), (anon_sym_STAR, ACTIONS 17), (anon_sym_print, ACTIONS 19),
    (anon_sym_comptime, ACTIONS 99), (anon_sym_assert, ACTIONS 23),
    (anon_sym___comptime_assert, ACTIONS 25), (anon_sym_return, ACTIONS 27),
    (anon_sym_del, ACTIONS 29), (anon_sym_raise, ACTIONS 31), (anon_sym_pass, ACTIONS 33),
    (anon_sym_break, ACTIONS 35), (anon_sym_continue, ACTIONS 37),
    (anon_sym___extension, ACTIONS 101), (anon_sym___mlir_region, ACTIONS 103),
    (anon_sym_if, ACTIONS 105), (anon_sym_match, ACTIONS 107), (anon_sym_async, ACTIONS 109),
    (anon_sym_for, ACTIONS 111), (anon_sym_while, ACTIONS 113), (anon_sym_try, ACTIONS 115),
    (anon_sym_with, ACTIONS 117), (anon_sym_def, ACTIONS 119), (anon_sym_fn, ACTIONS 119),
    (anon_sym_LBRACK, ACTIONS 59), (anon_sym_LBRACE, ACTIONS 61), (anon_sym_global, ACTIONS 63),
    (anon_sym_nonlocal, ACTIONS 65), (anon_sym_exec, ACTIONS 67), (anon_sym_type, ACTIONS 69),
    (anon_sym_class, ACTIONS 121), (anon_sym_struct, ACTIONS 121), (anon_sym_mut, ACTIONS 73),
    (anon_sym_out, ACTIONS 73), (anon_sym_trait, ACTIONS 123), (anon_sym_AT, ACTIONS 77),
    (anon_sym_DASH, ACTIONS 79), (anon_sym_PLUS, ACTIONS 79), (anon_sym_ref, ACTIONS 81),
    (anon_sym_var, ACTIONS 81), (anon_sym_not, ACTIONS 83), (anon_sym_TILDE, ACTIONS 79),
    (anon_sym_lambda, ACTIONS 85), (anon_sym_yield, ACTIONS 87), (sym_ellipsis, ACTIONS 89),
    (anon_sym___mlir_type, ACTIONS 91), (sym_integer, ACTIONS 93), (sym_float, ACTIONS 89),
    (anon_sym_await, ACTIONS 95), (sym_true, ACTIONS 93), (sym_false, ACTIONS 93),
    (sym_none, ACTIONS 93), (sym_comment, ACTIONS 3), (sym_line_continuation, ACTIONS 3),
    (sym__dedent, ACTIONS 129), (sym_string_start, ACTIONS 97)]"

definition parse_table_238 :: "(nat \<times> nat) list" where "parse_table_238 = [
    (sym__statement, STATE 925), (sym__simple_statements, STATE 925),
    (sym_import_statement, STATE 11814), (sym_future_import_statement, STATE 11814),
    (sym_import_from_statement, STATE 11814), (sym_print_statement, STATE 11814),
    (sym_assert_statement, STATE 11814), (sym_comptime_assert_statement, STATE 11814),
    (sym_expression_statement, STATE 11814), (sym_tuple_expression, STATE 12425),
    (sym_named_expression, STATE 7969), (sym__named_expression_lhs, STATE 12752),
    (sym_return_statement, STATE 11814), (sym_delete_statement, STATE 11814),
    (sym_raise_statement, STATE 11814), (sym_pass_statement, STATE 11814),
    (sym_break_statement, STATE 11814), (sym_continue_statement, STATE 11814),
    (sym_extension_definition, STATE 925), (sym_mlir_region, STATE 925),
    (sym_comptime_statement, STATE 925), (sym_if_statement, STATE 925),
    (sym_match_statement, STATE 925), (sym_for_statement, STATE 925),
    (sym_while_statement, STATE 925), (sym_try_statement, STATE 925),
    (sym_with_statement, STATE 925), (sym_function_definition, STATE 925),
    (sym_global_statement, STATE 11814), (sym_nonlocal_statement, STATE 11814),
    (sym_exec_statement, STATE 11814), (sym_type_alias_statement, STATE 11814),
    (sym_parameterized_alias_statement, STATE 11814), (sym_class_definition, STATE 925),
    (sym_trait_definition, STATE 925), (sym_decorated_definition, STATE 925),
    (sym_decorator, STATE 3670), (sym_block, STATE 5343), (sym_pattern, STATE 8086),
    (sym_tuple_pattern, STATE 8101), (sym_list_pattern, STATE 8101),
    (sym_list_splat_pattern, STATE 6819), (sym_as_pattern, STATE 7969),
    (sym_expression, STATE 9883), (sym_primary_expression, STATE 7326),
    (sym_comptime_expression, STATE 7017), (sym_transfer_expression, STATE 7017),
    (sym_not_operator, STATE 7969), (sym_boolean_operator, STATE 7969),
    (sym_binary_operator, STATE 7017), (sym_unary_operator, STATE 7017),
    (sym_comparison_operator, STATE 7969), (sym_lambda, STATE 7969),
    (sym_assignment, STATE 12425), (sym_augmented_assignment, STATE 12425),
    (sym_pattern_list, STATE 8578), (sym_yield, STATE 12425), (sym_attribute, STATE 6836),
    (sym_subscript, STATE 6838), (sym_call, STATE 6845), (sym_mlir_type, STATE 7017),
    (sym_list, STATE 7017), (sym_set, STATE 7017), (sym_tuple, STATE 7017),
    (sym_dictionary, STATE 7017), (sym_struct_literal, STATE 7017),
    (sym_list_comprehension, STATE 7017), (sym_dictionary_comprehension, STATE 7017),
    (sym_set_comprehension, STATE 7017), (sym_generator_expression, STATE 7017),
    (sym_parenthesized_expression, STATE 7017), (sym_conditional_expression, STATE 7969),
    (sym_concatenated_string, STATE 7017), (sym_string, STATE 6751), (sym_await, STATE 7017),
    (aux_sym_module_repeat1, STATE 925), (aux_sym_decorated_definition_repeat1, STATE 3670),
    (sym_identifier, ACTIONS 9), (anon_sym_import, ACTIONS 11), (anon_sym_from, ACTIONS 13),
    (anon_sym_LPAREN, ACTIONS 15), (anon_sym_STAR, ACTIONS 17), (anon_sym_print, ACTIONS 19),
    (anon_sym_comptime, ACTIONS 99), (anon_sym_assert, ACTIONS 23),
    (anon_sym___comptime_assert, ACTIONS 25), (anon_sym_return, ACTIONS 27),
    (anon_sym_del, ACTIONS 29), (anon_sym_raise, ACTIONS 31), (anon_sym_pass, ACTIONS 33),
    (anon_sym_break, ACTIONS 35), (anon_sym_continue, ACTIONS 37),
    (anon_sym___extension, ACTIONS 101), (anon_sym___mlir_region, ACTIONS 103),
    (anon_sym_if, ACTIONS 105), (anon_sym_match, ACTIONS 107), (anon_sym_async, ACTIONS 109),
    (anon_sym_for, ACTIONS 111), (anon_sym_while, ACTIONS 113), (anon_sym_try, ACTIONS 115),
    (anon_sym_with, ACTIONS 117), (anon_sym_def, ACTIONS 119), (anon_sym_fn, ACTIONS 119),
    (anon_sym_LBRACK, ACTIONS 59), (anon_sym_LBRACE, ACTIONS 61), (anon_sym_global, ACTIONS 63),
    (anon_sym_nonlocal, ACTIONS 65), (anon_sym_exec, ACTIONS 67), (anon_sym_type, ACTIONS 69),
    (anon_sym_class, ACTIONS 121), (anon_sym_struct, ACTIONS 121), (anon_sym_mut, ACTIONS 73),
    (anon_sym_out, ACTIONS 73), (anon_sym_trait, ACTIONS 123), (anon_sym_AT, ACTIONS 77),
    (anon_sym_DASH, ACTIONS 79), (anon_sym_PLUS, ACTIONS 79), (anon_sym_ref, ACTIONS 81),
    (anon_sym_var, ACTIONS 81), (anon_sym_not, ACTIONS 83), (anon_sym_TILDE, ACTIONS 79),
    (anon_sym_lambda, ACTIONS 85), (anon_sym_yield, ACTIONS 87), (sym_ellipsis, ACTIONS 89),
    (anon_sym___mlir_type, ACTIONS 91), (sym_integer, ACTIONS 93), (sym_float, ACTIONS 89),
    (anon_sym_await, ACTIONS 95), (sym_true, ACTIONS 93), (sym_false, ACTIONS 93),
    (sym_none, ACTIONS 93), (sym_comment, ACTIONS 3), (sym_line_continuation, ACTIONS 3),
    (sym__dedent, ACTIONS 129), (sym_string_start, ACTIONS 97)]"

definition parse_table_239 :: "(nat \<times> nat) list" where "parse_table_239 = [
    (sym__statement, STATE 925), (sym__simple_statements, STATE 925),
    (sym_import_statement, STATE 11814), (sym_future_import_statement, STATE 11814),
    (sym_import_from_statement, STATE 11814), (sym_print_statement, STATE 11814),
    (sym_assert_statement, STATE 11814), (sym_comptime_assert_statement, STATE 11814),
    (sym_expression_statement, STATE 11814), (sym_tuple_expression, STATE 12425),
    (sym_named_expression, STATE 7969), (sym__named_expression_lhs, STATE 12752),
    (sym_return_statement, STATE 11814), (sym_delete_statement, STATE 11814),
    (sym_raise_statement, STATE 11814), (sym_pass_statement, STATE 11814),
    (sym_break_statement, STATE 11814), (sym_continue_statement, STATE 11814),
    (sym_extension_definition, STATE 925), (sym_mlir_region, STATE 925),
    (sym_comptime_statement, STATE 925), (sym_if_statement, STATE 925),
    (sym_match_statement, STATE 925), (sym_for_statement, STATE 925),
    (sym_while_statement, STATE 925), (sym_try_statement, STATE 925),
    (sym_with_statement, STATE 925), (sym_function_definition, STATE 925),
    (sym_global_statement, STATE 11814), (sym_nonlocal_statement, STATE 11814),
    (sym_exec_statement, STATE 11814), (sym_type_alias_statement, STATE 11814),
    (sym_parameterized_alias_statement, STATE 11814), (sym_class_definition, STATE 925),
    (sym_trait_definition, STATE 925), (sym_decorated_definition, STATE 925),
    (sym_decorator, STATE 3670), (sym_block, STATE 5344), (sym_pattern, STATE 8086),
    (sym_tuple_pattern, STATE 8101), (sym_list_pattern, STATE 8101),
    (sym_list_splat_pattern, STATE 6819), (sym_as_pattern, STATE 7969),
    (sym_expression, STATE 9883), (sym_primary_expression, STATE 7326),
    (sym_comptime_expression, STATE 7017), (sym_transfer_expression, STATE 7017),
    (sym_not_operator, STATE 7969), (sym_boolean_operator, STATE 7969),
    (sym_binary_operator, STATE 7017), (sym_unary_operator, STATE 7017),
    (sym_comparison_operator, STATE 7969), (sym_lambda, STATE 7969),
    (sym_assignment, STATE 12425), (sym_augmented_assignment, STATE 12425),
    (sym_pattern_list, STATE 8578), (sym_yield, STATE 12425), (sym_attribute, STATE 6836),
    (sym_subscript, STATE 6838), (sym_call, STATE 6845), (sym_mlir_type, STATE 7017),
    (sym_list, STATE 7017), (sym_set, STATE 7017), (sym_tuple, STATE 7017),
    (sym_dictionary, STATE 7017), (sym_struct_literal, STATE 7017),
    (sym_list_comprehension, STATE 7017), (sym_dictionary_comprehension, STATE 7017),
    (sym_set_comprehension, STATE 7017), (sym_generator_expression, STATE 7017),
    (sym_parenthesized_expression, STATE 7017), (sym_conditional_expression, STATE 7969),
    (sym_concatenated_string, STATE 7017), (sym_string, STATE 6751), (sym_await, STATE 7017),
    (aux_sym_module_repeat1, STATE 925), (aux_sym_decorated_definition_repeat1, STATE 3670),
    (sym_identifier, ACTIONS 9), (anon_sym_import, ACTIONS 11), (anon_sym_from, ACTIONS 13),
    (anon_sym_LPAREN, ACTIONS 15), (anon_sym_STAR, ACTIONS 17), (anon_sym_print, ACTIONS 19),
    (anon_sym_comptime, ACTIONS 99), (anon_sym_assert, ACTIONS 23),
    (anon_sym___comptime_assert, ACTIONS 25), (anon_sym_return, ACTIONS 27),
    (anon_sym_del, ACTIONS 29), (anon_sym_raise, ACTIONS 31), (anon_sym_pass, ACTIONS 33),
    (anon_sym_break, ACTIONS 35), (anon_sym_continue, ACTIONS 37),
    (anon_sym___extension, ACTIONS 101), (anon_sym___mlir_region, ACTIONS 103),
    (anon_sym_if, ACTIONS 105), (anon_sym_match, ACTIONS 107), (anon_sym_async, ACTIONS 109),
    (anon_sym_for, ACTIONS 111), (anon_sym_while, ACTIONS 113), (anon_sym_try, ACTIONS 115),
    (anon_sym_with, ACTIONS 117), (anon_sym_def, ACTIONS 119), (anon_sym_fn, ACTIONS 119),
    (anon_sym_LBRACK, ACTIONS 59), (anon_sym_LBRACE, ACTIONS 61), (anon_sym_global, ACTIONS 63),
    (anon_sym_nonlocal, ACTIONS 65), (anon_sym_exec, ACTIONS 67), (anon_sym_type, ACTIONS 69),
    (anon_sym_class, ACTIONS 121), (anon_sym_struct, ACTIONS 121), (anon_sym_mut, ACTIONS 73),
    (anon_sym_out, ACTIONS 73), (anon_sym_trait, ACTIONS 123), (anon_sym_AT, ACTIONS 77),
    (anon_sym_DASH, ACTIONS 79), (anon_sym_PLUS, ACTIONS 79), (anon_sym_ref, ACTIONS 81),
    (anon_sym_var, ACTIONS 81), (anon_sym_not, ACTIONS 83), (anon_sym_TILDE, ACTIONS 79),
    (anon_sym_lambda, ACTIONS 85), (anon_sym_yield, ACTIONS 87), (sym_ellipsis, ACTIONS 89),
    (anon_sym___mlir_type, ACTIONS 91), (sym_integer, ACTIONS 93), (sym_float, ACTIONS 89),
    (anon_sym_await, ACTIONS 95), (sym_true, ACTIONS 93), (sym_false, ACTIONS 93),
    (sym_none, ACTIONS 93), (sym_comment, ACTIONS 3), (sym_line_continuation, ACTIONS 3),
    (sym__dedent, ACTIONS 129), (sym_string_start, ACTIONS 97)]"

definition parse_table_240 :: "(nat \<times> nat) list" where "parse_table_240 = [
    (sym__statement, STATE 925), (sym__simple_statements, STATE 925),
    (sym_import_statement, STATE 11814), (sym_future_import_statement, STATE 11814),
    (sym_import_from_statement, STATE 11814), (sym_print_statement, STATE 11814),
    (sym_assert_statement, STATE 11814), (sym_comptime_assert_statement, STATE 11814),
    (sym_expression_statement, STATE 11814), (sym_tuple_expression, STATE 12425),
    (sym_named_expression, STATE 7969), (sym__named_expression_lhs, STATE 12752),
    (sym_return_statement, STATE 11814), (sym_delete_statement, STATE 11814),
    (sym_raise_statement, STATE 11814), (sym_pass_statement, STATE 11814),
    (sym_break_statement, STATE 11814), (sym_continue_statement, STATE 11814),
    (sym_extension_definition, STATE 925), (sym_mlir_region, STATE 925),
    (sym_comptime_statement, STATE 925), (sym_if_statement, STATE 925),
    (sym_match_statement, STATE 925), (sym_for_statement, STATE 925),
    (sym_while_statement, STATE 925), (sym_try_statement, STATE 925),
    (sym_with_statement, STATE 925), (sym_function_definition, STATE 925),
    (sym_global_statement, STATE 11814), (sym_nonlocal_statement, STATE 11814),
    (sym_exec_statement, STATE 11814), (sym_type_alias_statement, STATE 11814),
    (sym_parameterized_alias_statement, STATE 11814), (sym_class_definition, STATE 925),
    (sym_trait_definition, STATE 925), (sym_decorated_definition, STATE 925),
    (sym_decorator, STATE 3670), (sym_block, STATE 6718), (sym_pattern, STATE 8086),
    (sym_tuple_pattern, STATE 8101), (sym_list_pattern, STATE 8101),
    (sym_list_splat_pattern, STATE 6819), (sym_as_pattern, STATE 7969),
    (sym_expression, STATE 9883), (sym_primary_expression, STATE 7326),
    (sym_comptime_expression, STATE 7017), (sym_transfer_expression, STATE 7017),
    (sym_not_operator, STATE 7969), (sym_boolean_operator, STATE 7969),
    (sym_binary_operator, STATE 7017), (sym_unary_operator, STATE 7017),
    (sym_comparison_operator, STATE 7969), (sym_lambda, STATE 7969),
    (sym_assignment, STATE 12425), (sym_augmented_assignment, STATE 12425),
    (sym_pattern_list, STATE 8578), (sym_yield, STATE 12425), (sym_attribute, STATE 6836),
    (sym_subscript, STATE 6838), (sym_call, STATE 6845), (sym_mlir_type, STATE 7017),
    (sym_list, STATE 7017), (sym_set, STATE 7017), (sym_tuple, STATE 7017),
    (sym_dictionary, STATE 7017), (sym_struct_literal, STATE 7017),
    (sym_list_comprehension, STATE 7017), (sym_dictionary_comprehension, STATE 7017),
    (sym_set_comprehension, STATE 7017), (sym_generator_expression, STATE 7017),
    (sym_parenthesized_expression, STATE 7017), (sym_conditional_expression, STATE 7969),
    (sym_concatenated_string, STATE 7017), (sym_string, STATE 6751), (sym_await, STATE 7017),
    (aux_sym_module_repeat1, STATE 925), (aux_sym_decorated_definition_repeat1, STATE 3670),
    (sym_identifier, ACTIONS 9), (anon_sym_import, ACTIONS 11), (anon_sym_from, ACTIONS 13),
    (anon_sym_LPAREN, ACTIONS 15), (anon_sym_STAR, ACTIONS 17), (anon_sym_print, ACTIONS 19),
    (anon_sym_comptime, ACTIONS 99), (anon_sym_assert, ACTIONS 23),
    (anon_sym___comptime_assert, ACTIONS 25), (anon_sym_return, ACTIONS 27),
    (anon_sym_del, ACTIONS 29), (anon_sym_raise, ACTIONS 31), (anon_sym_pass, ACTIONS 33),
    (anon_sym_break, ACTIONS 35), (anon_sym_continue, ACTIONS 37),
    (anon_sym___extension, ACTIONS 101), (anon_sym___mlir_region, ACTIONS 103),
    (anon_sym_if, ACTIONS 105), (anon_sym_match, ACTIONS 107), (anon_sym_async, ACTIONS 109),
    (anon_sym_for, ACTIONS 111), (anon_sym_while, ACTIONS 113), (anon_sym_try, ACTIONS 115),
    (anon_sym_with, ACTIONS 117), (anon_sym_def, ACTIONS 119), (anon_sym_fn, ACTIONS 119),
    (anon_sym_LBRACK, ACTIONS 59), (anon_sym_LBRACE, ACTIONS 61), (anon_sym_global, ACTIONS 63),
    (anon_sym_nonlocal, ACTIONS 65), (anon_sym_exec, ACTIONS 67), (anon_sym_type, ACTIONS 69),
    (anon_sym_class, ACTIONS 121), (anon_sym_struct, ACTIONS 121), (anon_sym_mut, ACTIONS 73),
    (anon_sym_out, ACTIONS 73), (anon_sym_trait, ACTIONS 123), (anon_sym_AT, ACTIONS 77),
    (anon_sym_DASH, ACTIONS 79), (anon_sym_PLUS, ACTIONS 79), (anon_sym_ref, ACTIONS 81),
    (anon_sym_var, ACTIONS 81), (anon_sym_not, ACTIONS 83), (anon_sym_TILDE, ACTIONS 79),
    (anon_sym_lambda, ACTIONS 85), (anon_sym_yield, ACTIONS 87), (sym_ellipsis, ACTIONS 89),
    (anon_sym___mlir_type, ACTIONS 91), (sym_integer, ACTIONS 93), (sym_float, ACTIONS 89),
    (anon_sym_await, ACTIONS 95), (sym_true, ACTIONS 93), (sym_false, ACTIONS 93),
    (sym_none, ACTIONS 93), (sym_comment, ACTIONS 3), (sym_line_continuation, ACTIONS 3),
    (sym__dedent, ACTIONS 129), (sym_string_start, ACTIONS 97)]"

definition parse_table_241 :: "(nat \<times> nat) list" where "parse_table_241 = [
    (sym__statement, STATE 925), (sym__simple_statements, STATE 925),
    (sym_import_statement, STATE 11814), (sym_future_import_statement, STATE 11814),
    (sym_import_from_statement, STATE 11814), (sym_print_statement, STATE 11814),
    (sym_assert_statement, STATE 11814), (sym_comptime_assert_statement, STATE 11814),
    (sym_expression_statement, STATE 11814), (sym_tuple_expression, STATE 12425),
    (sym_named_expression, STATE 7969), (sym__named_expression_lhs, STATE 12752),
    (sym_return_statement, STATE 11814), (sym_delete_statement, STATE 11814),
    (sym_raise_statement, STATE 11814), (sym_pass_statement, STATE 11814),
    (sym_break_statement, STATE 11814), (sym_continue_statement, STATE 11814),
    (sym_extension_definition, STATE 925), (sym_mlir_region, STATE 925),
    (sym_comptime_statement, STATE 925), (sym_if_statement, STATE 925),
    (sym_match_statement, STATE 925), (sym_for_statement, STATE 925),
    (sym_while_statement, STATE 925), (sym_try_statement, STATE 925),
    (sym_with_statement, STATE 925), (sym_function_definition, STATE 925),
    (sym_global_statement, STATE 11814), (sym_nonlocal_statement, STATE 11814),
    (sym_exec_statement, STATE 11814), (sym_type_alias_statement, STATE 11814),
    (sym_parameterized_alias_statement, STATE 11814), (sym_class_definition, STATE 925),
    (sym_trait_definition, STATE 925), (sym_decorated_definition, STATE 925),
    (sym_decorator, STATE 3670), (sym_block, STATE 5346), (sym_pattern, STATE 8086),
    (sym_tuple_pattern, STATE 8101), (sym_list_pattern, STATE 8101),
    (sym_list_splat_pattern, STATE 6819), (sym_as_pattern, STATE 7969),
    (sym_expression, STATE 9883), (sym_primary_expression, STATE 7326),
    (sym_comptime_expression, STATE 7017), (sym_transfer_expression, STATE 7017),
    (sym_not_operator, STATE 7969), (sym_boolean_operator, STATE 7969),
    (sym_binary_operator, STATE 7017), (sym_unary_operator, STATE 7017),
    (sym_comparison_operator, STATE 7969), (sym_lambda, STATE 7969),
    (sym_assignment, STATE 12425), (sym_augmented_assignment, STATE 12425),
    (sym_pattern_list, STATE 8578), (sym_yield, STATE 12425), (sym_attribute, STATE 6836),
    (sym_subscript, STATE 6838), (sym_call, STATE 6845), (sym_mlir_type, STATE 7017),
    (sym_list, STATE 7017), (sym_set, STATE 7017), (sym_tuple, STATE 7017),
    (sym_dictionary, STATE 7017), (sym_struct_literal, STATE 7017),
    (sym_list_comprehension, STATE 7017), (sym_dictionary_comprehension, STATE 7017),
    (sym_set_comprehension, STATE 7017), (sym_generator_expression, STATE 7017),
    (sym_parenthesized_expression, STATE 7017), (sym_conditional_expression, STATE 7969),
    (sym_concatenated_string, STATE 7017), (sym_string, STATE 6751), (sym_await, STATE 7017),
    (aux_sym_module_repeat1, STATE 925), (aux_sym_decorated_definition_repeat1, STATE 3670),
    (sym_identifier, ACTIONS 9), (anon_sym_import, ACTIONS 11), (anon_sym_from, ACTIONS 13),
    (anon_sym_LPAREN, ACTIONS 15), (anon_sym_STAR, ACTIONS 17), (anon_sym_print, ACTIONS 19),
    (anon_sym_comptime, ACTIONS 99), (anon_sym_assert, ACTIONS 23),
    (anon_sym___comptime_assert, ACTIONS 25), (anon_sym_return, ACTIONS 27),
    (anon_sym_del, ACTIONS 29), (anon_sym_raise, ACTIONS 31), (anon_sym_pass, ACTIONS 33),
    (anon_sym_break, ACTIONS 35), (anon_sym_continue, ACTIONS 37),
    (anon_sym___extension, ACTIONS 101), (anon_sym___mlir_region, ACTIONS 103),
    (anon_sym_if, ACTIONS 105), (anon_sym_match, ACTIONS 107), (anon_sym_async, ACTIONS 109),
    (anon_sym_for, ACTIONS 111), (anon_sym_while, ACTIONS 113), (anon_sym_try, ACTIONS 115),
    (anon_sym_with, ACTIONS 117), (anon_sym_def, ACTIONS 119), (anon_sym_fn, ACTIONS 119),
    (anon_sym_LBRACK, ACTIONS 59), (anon_sym_LBRACE, ACTIONS 61), (anon_sym_global, ACTIONS 63),
    (anon_sym_nonlocal, ACTIONS 65), (anon_sym_exec, ACTIONS 67), (anon_sym_type, ACTIONS 69),
    (anon_sym_class, ACTIONS 121), (anon_sym_struct, ACTIONS 121), (anon_sym_mut, ACTIONS 73),
    (anon_sym_out, ACTIONS 73), (anon_sym_trait, ACTIONS 123), (anon_sym_AT, ACTIONS 77),
    (anon_sym_DASH, ACTIONS 79), (anon_sym_PLUS, ACTIONS 79), (anon_sym_ref, ACTIONS 81),
    (anon_sym_var, ACTIONS 81), (anon_sym_not, ACTIONS 83), (anon_sym_TILDE, ACTIONS 79),
    (anon_sym_lambda, ACTIONS 85), (anon_sym_yield, ACTIONS 87), (sym_ellipsis, ACTIONS 89),
    (anon_sym___mlir_type, ACTIONS 91), (sym_integer, ACTIONS 93), (sym_float, ACTIONS 89),
    (anon_sym_await, ACTIONS 95), (sym_true, ACTIONS 93), (sym_false, ACTIONS 93),
    (sym_none, ACTIONS 93), (sym_comment, ACTIONS 3), (sym_line_continuation, ACTIONS 3),
    (sym__dedent, ACTIONS 129), (sym_string_start, ACTIONS 97)]"

definition parse_table_242 :: "(nat \<times> nat) list" where "parse_table_242 = [
    (sym__statement, STATE 925), (sym__simple_statements, STATE 925),
    (sym_import_statement, STATE 11814), (sym_future_import_statement, STATE 11814),
    (sym_import_from_statement, STATE 11814), (sym_print_statement, STATE 11814),
    (sym_assert_statement, STATE 11814), (sym_comptime_assert_statement, STATE 11814),
    (sym_expression_statement, STATE 11814), (sym_tuple_expression, STATE 12425),
    (sym_named_expression, STATE 7969), (sym__named_expression_lhs, STATE 12752),
    (sym_return_statement, STATE 11814), (sym_delete_statement, STATE 11814),
    (sym_raise_statement, STATE 11814), (sym_pass_statement, STATE 11814),
    (sym_break_statement, STATE 11814), (sym_continue_statement, STATE 11814),
    (sym_extension_definition, STATE 925), (sym_mlir_region, STATE 925),
    (sym_comptime_statement, STATE 925), (sym_if_statement, STATE 925),
    (sym_match_statement, STATE 925), (sym_for_statement, STATE 925),
    (sym_while_statement, STATE 925), (sym_try_statement, STATE 925),
    (sym_with_statement, STATE 925), (sym_function_definition, STATE 925),
    (sym_global_statement, STATE 11814), (sym_nonlocal_statement, STATE 11814),
    (sym_exec_statement, STATE 11814), (sym_type_alias_statement, STATE 11814),
    (sym_parameterized_alias_statement, STATE 11814), (sym_class_definition, STATE 925),
    (sym_trait_definition, STATE 925), (sym_decorated_definition, STATE 925),
    (sym_decorator, STATE 3670), (sym_block, STATE 5347), (sym_pattern, STATE 8086),
    (sym_tuple_pattern, STATE 8101), (sym_list_pattern, STATE 8101),
    (sym_list_splat_pattern, STATE 6819), (sym_as_pattern, STATE 7969),
    (sym_expression, STATE 9883), (sym_primary_expression, STATE 7326),
    (sym_comptime_expression, STATE 7017), (sym_transfer_expression, STATE 7017),
    (sym_not_operator, STATE 7969), (sym_boolean_operator, STATE 7969),
    (sym_binary_operator, STATE 7017), (sym_unary_operator, STATE 7017),
    (sym_comparison_operator, STATE 7969), (sym_lambda, STATE 7969),
    (sym_assignment, STATE 12425), (sym_augmented_assignment, STATE 12425),
    (sym_pattern_list, STATE 8578), (sym_yield, STATE 12425), (sym_attribute, STATE 6836),
    (sym_subscript, STATE 6838), (sym_call, STATE 6845), (sym_mlir_type, STATE 7017),
    (sym_list, STATE 7017), (sym_set, STATE 7017), (sym_tuple, STATE 7017),
    (sym_dictionary, STATE 7017), (sym_struct_literal, STATE 7017),
    (sym_list_comprehension, STATE 7017), (sym_dictionary_comprehension, STATE 7017),
    (sym_set_comprehension, STATE 7017), (sym_generator_expression, STATE 7017),
    (sym_parenthesized_expression, STATE 7017), (sym_conditional_expression, STATE 7969),
    (sym_concatenated_string, STATE 7017), (sym_string, STATE 6751), (sym_await, STATE 7017),
    (aux_sym_module_repeat1, STATE 925), (aux_sym_decorated_definition_repeat1, STATE 3670),
    (sym_identifier, ACTIONS 9), (anon_sym_import, ACTIONS 11), (anon_sym_from, ACTIONS 13),
    (anon_sym_LPAREN, ACTIONS 15), (anon_sym_STAR, ACTIONS 17), (anon_sym_print, ACTIONS 19),
    (anon_sym_comptime, ACTIONS 99), (anon_sym_assert, ACTIONS 23),
    (anon_sym___comptime_assert, ACTIONS 25), (anon_sym_return, ACTIONS 27),
    (anon_sym_del, ACTIONS 29), (anon_sym_raise, ACTIONS 31), (anon_sym_pass, ACTIONS 33),
    (anon_sym_break, ACTIONS 35), (anon_sym_continue, ACTIONS 37),
    (anon_sym___extension, ACTIONS 101), (anon_sym___mlir_region, ACTIONS 103),
    (anon_sym_if, ACTIONS 105), (anon_sym_match, ACTIONS 107), (anon_sym_async, ACTIONS 109),
    (anon_sym_for, ACTIONS 111), (anon_sym_while, ACTIONS 113), (anon_sym_try, ACTIONS 115),
    (anon_sym_with, ACTIONS 117), (anon_sym_def, ACTIONS 119), (anon_sym_fn, ACTIONS 119),
    (anon_sym_LBRACK, ACTIONS 59), (anon_sym_LBRACE, ACTIONS 61), (anon_sym_global, ACTIONS 63),
    (anon_sym_nonlocal, ACTIONS 65), (anon_sym_exec, ACTIONS 67), (anon_sym_type, ACTIONS 69),
    (anon_sym_class, ACTIONS 121), (anon_sym_struct, ACTIONS 121), (anon_sym_mut, ACTIONS 73),
    (anon_sym_out, ACTIONS 73), (anon_sym_trait, ACTIONS 123), (anon_sym_AT, ACTIONS 77),
    (anon_sym_DASH, ACTIONS 79), (anon_sym_PLUS, ACTIONS 79), (anon_sym_ref, ACTIONS 81),
    (anon_sym_var, ACTIONS 81), (anon_sym_not, ACTIONS 83), (anon_sym_TILDE, ACTIONS 79),
    (anon_sym_lambda, ACTIONS 85), (anon_sym_yield, ACTIONS 87), (sym_ellipsis, ACTIONS 89),
    (anon_sym___mlir_type, ACTIONS 91), (sym_integer, ACTIONS 93), (sym_float, ACTIONS 89),
    (anon_sym_await, ACTIONS 95), (sym_true, ACTIONS 93), (sym_false, ACTIONS 93),
    (sym_none, ACTIONS 93), (sym_comment, ACTIONS 3), (sym_line_continuation, ACTIONS 3),
    (sym__dedent, ACTIONS 129), (sym_string_start, ACTIONS 97)]"

definition parse_table_243 :: "(nat \<times> nat) list" where "parse_table_243 = [
    (sym__statement, STATE 925), (sym__simple_statements, STATE 925),
    (sym_import_statement, STATE 11814), (sym_future_import_statement, STATE 11814),
    (sym_import_from_statement, STATE 11814), (sym_print_statement, STATE 11814),
    (sym_assert_statement, STATE 11814), (sym_comptime_assert_statement, STATE 11814),
    (sym_expression_statement, STATE 11814), (sym_tuple_expression, STATE 12425),
    (sym_named_expression, STATE 7969), (sym__named_expression_lhs, STATE 12752),
    (sym_return_statement, STATE 11814), (sym_delete_statement, STATE 11814),
    (sym_raise_statement, STATE 11814), (sym_pass_statement, STATE 11814),
    (sym_break_statement, STATE 11814), (sym_continue_statement, STATE 11814),
    (sym_extension_definition, STATE 925), (sym_mlir_region, STATE 925),
    (sym_comptime_statement, STATE 925), (sym_if_statement, STATE 925),
    (sym_match_statement, STATE 925), (sym_for_statement, STATE 925),
    (sym_while_statement, STATE 925), (sym_try_statement, STATE 925),
    (sym_with_statement, STATE 925), (sym_function_definition, STATE 925),
    (sym_global_statement, STATE 11814), (sym_nonlocal_statement, STATE 11814),
    (sym_exec_statement, STATE 11814), (sym_type_alias_statement, STATE 11814),
    (sym_parameterized_alias_statement, STATE 11814), (sym_class_definition, STATE 925),
    (sym_trait_definition, STATE 925), (sym_decorated_definition, STATE 925),
    (sym_decorator, STATE 3670), (sym_block, STATE 5351), (sym_pattern, STATE 8086),
    (sym_tuple_pattern, STATE 8101), (sym_list_pattern, STATE 8101),
    (sym_list_splat_pattern, STATE 6819), (sym_as_pattern, STATE 7969),
    (sym_expression, STATE 9883), (sym_primary_expression, STATE 7326),
    (sym_comptime_expression, STATE 7017), (sym_transfer_expression, STATE 7017),
    (sym_not_operator, STATE 7969), (sym_boolean_operator, STATE 7969),
    (sym_binary_operator, STATE 7017), (sym_unary_operator, STATE 7017),
    (sym_comparison_operator, STATE 7969), (sym_lambda, STATE 7969),
    (sym_assignment, STATE 12425), (sym_augmented_assignment, STATE 12425),
    (sym_pattern_list, STATE 8578), (sym_yield, STATE 12425), (sym_attribute, STATE 6836),
    (sym_subscript, STATE 6838), (sym_call, STATE 6845), (sym_mlir_type, STATE 7017),
    (sym_list, STATE 7017), (sym_set, STATE 7017), (sym_tuple, STATE 7017),
    (sym_dictionary, STATE 7017), (sym_struct_literal, STATE 7017),
    (sym_list_comprehension, STATE 7017), (sym_dictionary_comprehension, STATE 7017),
    (sym_set_comprehension, STATE 7017), (sym_generator_expression, STATE 7017),
    (sym_parenthesized_expression, STATE 7017), (sym_conditional_expression, STATE 7969),
    (sym_concatenated_string, STATE 7017), (sym_string, STATE 6751), (sym_await, STATE 7017),
    (aux_sym_module_repeat1, STATE 925), (aux_sym_decorated_definition_repeat1, STATE 3670),
    (sym_identifier, ACTIONS 9), (anon_sym_import, ACTIONS 11), (anon_sym_from, ACTIONS 13),
    (anon_sym_LPAREN, ACTIONS 15), (anon_sym_STAR, ACTIONS 17), (anon_sym_print, ACTIONS 19),
    (anon_sym_comptime, ACTIONS 99), (anon_sym_assert, ACTIONS 23),
    (anon_sym___comptime_assert, ACTIONS 25), (anon_sym_return, ACTIONS 27),
    (anon_sym_del, ACTIONS 29), (anon_sym_raise, ACTIONS 31), (anon_sym_pass, ACTIONS 33),
    (anon_sym_break, ACTIONS 35), (anon_sym_continue, ACTIONS 37),
    (anon_sym___extension, ACTIONS 101), (anon_sym___mlir_region, ACTIONS 103),
    (anon_sym_if, ACTIONS 105), (anon_sym_match, ACTIONS 107), (anon_sym_async, ACTIONS 109),
    (anon_sym_for, ACTIONS 111), (anon_sym_while, ACTIONS 113), (anon_sym_try, ACTIONS 115),
    (anon_sym_with, ACTIONS 117), (anon_sym_def, ACTIONS 119), (anon_sym_fn, ACTIONS 119),
    (anon_sym_LBRACK, ACTIONS 59), (anon_sym_LBRACE, ACTIONS 61), (anon_sym_global, ACTIONS 63),
    (anon_sym_nonlocal, ACTIONS 65), (anon_sym_exec, ACTIONS 67), (anon_sym_type, ACTIONS 69),
    (anon_sym_class, ACTIONS 121), (anon_sym_struct, ACTIONS 121), (anon_sym_mut, ACTIONS 73),
    (anon_sym_out, ACTIONS 73), (anon_sym_trait, ACTIONS 123), (anon_sym_AT, ACTIONS 77),
    (anon_sym_DASH, ACTIONS 79), (anon_sym_PLUS, ACTIONS 79), (anon_sym_ref, ACTIONS 81),
    (anon_sym_var, ACTIONS 81), (anon_sym_not, ACTIONS 83), (anon_sym_TILDE, ACTIONS 79),
    (anon_sym_lambda, ACTIONS 85), (anon_sym_yield, ACTIONS 87), (sym_ellipsis, ACTIONS 89),
    (anon_sym___mlir_type, ACTIONS 91), (sym_integer, ACTIONS 93), (sym_float, ACTIONS 89),
    (anon_sym_await, ACTIONS 95), (sym_true, ACTIONS 93), (sym_false, ACTIONS 93),
    (sym_none, ACTIONS 93), (sym_comment, ACTIONS 3), (sym_line_continuation, ACTIONS 3),
    (sym__dedent, ACTIONS 129), (sym_string_start, ACTIONS 97)]"

definition parse_table_244 :: "(nat \<times> nat) list" where "parse_table_244 = [
    (sym__statement, STATE 925), (sym__simple_statements, STATE 925),
    (sym_import_statement, STATE 11814), (sym_future_import_statement, STATE 11814),
    (sym_import_from_statement, STATE 11814), (sym_print_statement, STATE 11814),
    (sym_assert_statement, STATE 11814), (sym_comptime_assert_statement, STATE 11814),
    (sym_expression_statement, STATE 11814), (sym_tuple_expression, STATE 12425),
    (sym_named_expression, STATE 7969), (sym__named_expression_lhs, STATE 12752),
    (sym_return_statement, STATE 11814), (sym_delete_statement, STATE 11814),
    (sym_raise_statement, STATE 11814), (sym_pass_statement, STATE 11814),
    (sym_break_statement, STATE 11814), (sym_continue_statement, STATE 11814),
    (sym_extension_definition, STATE 925), (sym_mlir_region, STATE 925),
    (sym_comptime_statement, STATE 925), (sym_if_statement, STATE 925),
    (sym_match_statement, STATE 925), (sym_for_statement, STATE 925),
    (sym_while_statement, STATE 925), (sym_try_statement, STATE 925),
    (sym_with_statement, STATE 925), (sym_function_definition, STATE 925),
    (sym_global_statement, STATE 11814), (sym_nonlocal_statement, STATE 11814),
    (sym_exec_statement, STATE 11814), (sym_type_alias_statement, STATE 11814),
    (sym_parameterized_alias_statement, STATE 11814), (sym_class_definition, STATE 925),
    (sym_trait_definition, STATE 925), (sym_decorated_definition, STATE 925),
    (sym_decorator, STATE 3670), (sym_block, STATE 5352), (sym_pattern, STATE 8086),
    (sym_tuple_pattern, STATE 8101), (sym_list_pattern, STATE 8101),
    (sym_list_splat_pattern, STATE 6819), (sym_as_pattern, STATE 7969),
    (sym_expression, STATE 9883), (sym_primary_expression, STATE 7326),
    (sym_comptime_expression, STATE 7017), (sym_transfer_expression, STATE 7017),
    (sym_not_operator, STATE 7969), (sym_boolean_operator, STATE 7969),
    (sym_binary_operator, STATE 7017), (sym_unary_operator, STATE 7017),
    (sym_comparison_operator, STATE 7969), (sym_lambda, STATE 7969),
    (sym_assignment, STATE 12425), (sym_augmented_assignment, STATE 12425),
    (sym_pattern_list, STATE 8578), (sym_yield, STATE 12425), (sym_attribute, STATE 6836),
    (sym_subscript, STATE 6838), (sym_call, STATE 6845), (sym_mlir_type, STATE 7017),
    (sym_list, STATE 7017), (sym_set, STATE 7017), (sym_tuple, STATE 7017),
    (sym_dictionary, STATE 7017), (sym_struct_literal, STATE 7017),
    (sym_list_comprehension, STATE 7017), (sym_dictionary_comprehension, STATE 7017),
    (sym_set_comprehension, STATE 7017), (sym_generator_expression, STATE 7017),
    (sym_parenthesized_expression, STATE 7017), (sym_conditional_expression, STATE 7969),
    (sym_concatenated_string, STATE 7017), (sym_string, STATE 6751), (sym_await, STATE 7017),
    (aux_sym_module_repeat1, STATE 925), (aux_sym_decorated_definition_repeat1, STATE 3670),
    (sym_identifier, ACTIONS 9), (anon_sym_import, ACTIONS 11), (anon_sym_from, ACTIONS 13),
    (anon_sym_LPAREN, ACTIONS 15), (anon_sym_STAR, ACTIONS 17), (anon_sym_print, ACTIONS 19),
    (anon_sym_comptime, ACTIONS 99), (anon_sym_assert, ACTIONS 23),
    (anon_sym___comptime_assert, ACTIONS 25), (anon_sym_return, ACTIONS 27),
    (anon_sym_del, ACTIONS 29), (anon_sym_raise, ACTIONS 31), (anon_sym_pass, ACTIONS 33),
    (anon_sym_break, ACTIONS 35), (anon_sym_continue, ACTIONS 37),
    (anon_sym___extension, ACTIONS 101), (anon_sym___mlir_region, ACTIONS 103),
    (anon_sym_if, ACTIONS 105), (anon_sym_match, ACTIONS 107), (anon_sym_async, ACTIONS 109),
    (anon_sym_for, ACTIONS 111), (anon_sym_while, ACTIONS 113), (anon_sym_try, ACTIONS 115),
    (anon_sym_with, ACTIONS 117), (anon_sym_def, ACTIONS 119), (anon_sym_fn, ACTIONS 119),
    (anon_sym_LBRACK, ACTIONS 59), (anon_sym_LBRACE, ACTIONS 61), (anon_sym_global, ACTIONS 63),
    (anon_sym_nonlocal, ACTIONS 65), (anon_sym_exec, ACTIONS 67), (anon_sym_type, ACTIONS 69),
    (anon_sym_class, ACTIONS 121), (anon_sym_struct, ACTIONS 121), (anon_sym_mut, ACTIONS 73),
    (anon_sym_out, ACTIONS 73), (anon_sym_trait, ACTIONS 123), (anon_sym_AT, ACTIONS 77),
    (anon_sym_DASH, ACTIONS 79), (anon_sym_PLUS, ACTIONS 79), (anon_sym_ref, ACTIONS 81),
    (anon_sym_var, ACTIONS 81), (anon_sym_not, ACTIONS 83), (anon_sym_TILDE, ACTIONS 79),
    (anon_sym_lambda, ACTIONS 85), (anon_sym_yield, ACTIONS 87), (sym_ellipsis, ACTIONS 89),
    (anon_sym___mlir_type, ACTIONS 91), (sym_integer, ACTIONS 93), (sym_float, ACTIONS 89),
    (anon_sym_await, ACTIONS 95), (sym_true, ACTIONS 93), (sym_false, ACTIONS 93),
    (sym_none, ACTIONS 93), (sym_comment, ACTIONS 3), (sym_line_continuation, ACTIONS 3),
    (sym__dedent, ACTIONS 129), (sym_string_start, ACTIONS 97)]"

definition parse_table_245 :: "(nat \<times> nat) list" where "parse_table_245 = [
    (sym__statement, STATE 925), (sym__simple_statements, STATE 925),
    (sym_import_statement, STATE 11814), (sym_future_import_statement, STATE 11814),
    (sym_import_from_statement, STATE 11814), (sym_print_statement, STATE 11814),
    (sym_assert_statement, STATE 11814), (sym_comptime_assert_statement, STATE 11814),
    (sym_expression_statement, STATE 11814), (sym_tuple_expression, STATE 12425),
    (sym_named_expression, STATE 7969), (sym__named_expression_lhs, STATE 12752),
    (sym_return_statement, STATE 11814), (sym_delete_statement, STATE 11814),
    (sym_raise_statement, STATE 11814), (sym_pass_statement, STATE 11814),
    (sym_break_statement, STATE 11814), (sym_continue_statement, STATE 11814),
    (sym_extension_definition, STATE 925), (sym_mlir_region, STATE 925),
    (sym_comptime_statement, STATE 925), (sym_if_statement, STATE 925),
    (sym_match_statement, STATE 925), (sym_for_statement, STATE 925),
    (sym_while_statement, STATE 925), (sym_try_statement, STATE 925),
    (sym_with_statement, STATE 925), (sym_function_definition, STATE 925),
    (sym_global_statement, STATE 11814), (sym_nonlocal_statement, STATE 11814),
    (sym_exec_statement, STATE 11814), (sym_type_alias_statement, STATE 11814),
    (sym_parameterized_alias_statement, STATE 11814), (sym_class_definition, STATE 925),
    (sym_trait_definition, STATE 925), (sym_decorated_definition, STATE 925),
    (sym_decorator, STATE 3670), (sym_block, STATE 5353), (sym_pattern, STATE 8086),
    (sym_tuple_pattern, STATE 8101), (sym_list_pattern, STATE 8101),
    (sym_list_splat_pattern, STATE 6819), (sym_as_pattern, STATE 7969),
    (sym_expression, STATE 9883), (sym_primary_expression, STATE 7326),
    (sym_comptime_expression, STATE 7017), (sym_transfer_expression, STATE 7017),
    (sym_not_operator, STATE 7969), (sym_boolean_operator, STATE 7969),
    (sym_binary_operator, STATE 7017), (sym_unary_operator, STATE 7017),
    (sym_comparison_operator, STATE 7969), (sym_lambda, STATE 7969),
    (sym_assignment, STATE 12425), (sym_augmented_assignment, STATE 12425),
    (sym_pattern_list, STATE 8578), (sym_yield, STATE 12425), (sym_attribute, STATE 6836),
    (sym_subscript, STATE 6838), (sym_call, STATE 6845), (sym_mlir_type, STATE 7017),
    (sym_list, STATE 7017), (sym_set, STATE 7017), (sym_tuple, STATE 7017),
    (sym_dictionary, STATE 7017), (sym_struct_literal, STATE 7017),
    (sym_list_comprehension, STATE 7017), (sym_dictionary_comprehension, STATE 7017),
    (sym_set_comprehension, STATE 7017), (sym_generator_expression, STATE 7017),
    (sym_parenthesized_expression, STATE 7017), (sym_conditional_expression, STATE 7969),
    (sym_concatenated_string, STATE 7017), (sym_string, STATE 6751), (sym_await, STATE 7017),
    (aux_sym_module_repeat1, STATE 925), (aux_sym_decorated_definition_repeat1, STATE 3670),
    (sym_identifier, ACTIONS 9), (anon_sym_import, ACTIONS 11), (anon_sym_from, ACTIONS 13),
    (anon_sym_LPAREN, ACTIONS 15), (anon_sym_STAR, ACTIONS 17), (anon_sym_print, ACTIONS 19),
    (anon_sym_comptime, ACTIONS 99), (anon_sym_assert, ACTIONS 23),
    (anon_sym___comptime_assert, ACTIONS 25), (anon_sym_return, ACTIONS 27),
    (anon_sym_del, ACTIONS 29), (anon_sym_raise, ACTIONS 31), (anon_sym_pass, ACTIONS 33),
    (anon_sym_break, ACTIONS 35), (anon_sym_continue, ACTIONS 37),
    (anon_sym___extension, ACTIONS 101), (anon_sym___mlir_region, ACTIONS 103),
    (anon_sym_if, ACTIONS 105), (anon_sym_match, ACTIONS 107), (anon_sym_async, ACTIONS 109),
    (anon_sym_for, ACTIONS 111), (anon_sym_while, ACTIONS 113), (anon_sym_try, ACTIONS 115),
    (anon_sym_with, ACTIONS 117), (anon_sym_def, ACTIONS 119), (anon_sym_fn, ACTIONS 119),
    (anon_sym_LBRACK, ACTIONS 59), (anon_sym_LBRACE, ACTIONS 61), (anon_sym_global, ACTIONS 63),
    (anon_sym_nonlocal, ACTIONS 65), (anon_sym_exec, ACTIONS 67), (anon_sym_type, ACTIONS 69),
    (anon_sym_class, ACTIONS 121), (anon_sym_struct, ACTIONS 121), (anon_sym_mut, ACTIONS 73),
    (anon_sym_out, ACTIONS 73), (anon_sym_trait, ACTIONS 123), (anon_sym_AT, ACTIONS 77),
    (anon_sym_DASH, ACTIONS 79), (anon_sym_PLUS, ACTIONS 79), (anon_sym_ref, ACTIONS 81),
    (anon_sym_var, ACTIONS 81), (anon_sym_not, ACTIONS 83), (anon_sym_TILDE, ACTIONS 79),
    (anon_sym_lambda, ACTIONS 85), (anon_sym_yield, ACTIONS 87), (sym_ellipsis, ACTIONS 89),
    (anon_sym___mlir_type, ACTIONS 91), (sym_integer, ACTIONS 93), (sym_float, ACTIONS 89),
    (anon_sym_await, ACTIONS 95), (sym_true, ACTIONS 93), (sym_false, ACTIONS 93),
    (sym_none, ACTIONS 93), (sym_comment, ACTIONS 3), (sym_line_continuation, ACTIONS 3),
    (sym__dedent, ACTIONS 129), (sym_string_start, ACTIONS 97)]"

definition parse_table_246 :: "(nat \<times> nat) list" where "parse_table_246 = [
    (sym__statement, STATE 925), (sym__simple_statements, STATE 925),
    (sym_import_statement, STATE 11814), (sym_future_import_statement, STATE 11814),
    (sym_import_from_statement, STATE 11814), (sym_print_statement, STATE 11814),
    (sym_assert_statement, STATE 11814), (sym_comptime_assert_statement, STATE 11814),
    (sym_expression_statement, STATE 11814), (sym_tuple_expression, STATE 12425),
    (sym_named_expression, STATE 7969), (sym__named_expression_lhs, STATE 12752),
    (sym_return_statement, STATE 11814), (sym_delete_statement, STATE 11814),
    (sym_raise_statement, STATE 11814), (sym_pass_statement, STATE 11814),
    (sym_break_statement, STATE 11814), (sym_continue_statement, STATE 11814),
    (sym_extension_definition, STATE 925), (sym_mlir_region, STATE 925),
    (sym_comptime_statement, STATE 925), (sym_if_statement, STATE 925),
    (sym_match_statement, STATE 925), (sym_for_statement, STATE 925),
    (sym_while_statement, STATE 925), (sym_try_statement, STATE 925),
    (sym_with_statement, STATE 925), (sym_function_definition, STATE 925),
    (sym_global_statement, STATE 11814), (sym_nonlocal_statement, STATE 11814),
    (sym_exec_statement, STATE 11814), (sym_type_alias_statement, STATE 11814),
    (sym_parameterized_alias_statement, STATE 11814), (sym_class_definition, STATE 925),
    (sym_trait_definition, STATE 925), (sym_decorated_definition, STATE 925),
    (sym_decorator, STATE 3670), (sym_block, STATE 5356), (sym_pattern, STATE 8086),
    (sym_tuple_pattern, STATE 8101), (sym_list_pattern, STATE 8101),
    (sym_list_splat_pattern, STATE 6819), (sym_as_pattern, STATE 7969),
    (sym_expression, STATE 9883), (sym_primary_expression, STATE 7326),
    (sym_comptime_expression, STATE 7017), (sym_transfer_expression, STATE 7017),
    (sym_not_operator, STATE 7969), (sym_boolean_operator, STATE 7969),
    (sym_binary_operator, STATE 7017), (sym_unary_operator, STATE 7017),
    (sym_comparison_operator, STATE 7969), (sym_lambda, STATE 7969),
    (sym_assignment, STATE 12425), (sym_augmented_assignment, STATE 12425),
    (sym_pattern_list, STATE 8578), (sym_yield, STATE 12425), (sym_attribute, STATE 6836),
    (sym_subscript, STATE 6838), (sym_call, STATE 6845), (sym_mlir_type, STATE 7017),
    (sym_list, STATE 7017), (sym_set, STATE 7017), (sym_tuple, STATE 7017),
    (sym_dictionary, STATE 7017), (sym_struct_literal, STATE 7017),
    (sym_list_comprehension, STATE 7017), (sym_dictionary_comprehension, STATE 7017),
    (sym_set_comprehension, STATE 7017), (sym_generator_expression, STATE 7017),
    (sym_parenthesized_expression, STATE 7017), (sym_conditional_expression, STATE 7969),
    (sym_concatenated_string, STATE 7017), (sym_string, STATE 6751), (sym_await, STATE 7017),
    (aux_sym_module_repeat1, STATE 925), (aux_sym_decorated_definition_repeat1, STATE 3670),
    (sym_identifier, ACTIONS 9), (anon_sym_import, ACTIONS 11), (anon_sym_from, ACTIONS 13),
    (anon_sym_LPAREN, ACTIONS 15), (anon_sym_STAR, ACTIONS 17), (anon_sym_print, ACTIONS 19),
    (anon_sym_comptime, ACTIONS 99), (anon_sym_assert, ACTIONS 23),
    (anon_sym___comptime_assert, ACTIONS 25), (anon_sym_return, ACTIONS 27),
    (anon_sym_del, ACTIONS 29), (anon_sym_raise, ACTIONS 31), (anon_sym_pass, ACTIONS 33),
    (anon_sym_break, ACTIONS 35), (anon_sym_continue, ACTIONS 37),
    (anon_sym___extension, ACTIONS 101), (anon_sym___mlir_region, ACTIONS 103),
    (anon_sym_if, ACTIONS 105), (anon_sym_match, ACTIONS 107), (anon_sym_async, ACTIONS 109),
    (anon_sym_for, ACTIONS 111), (anon_sym_while, ACTIONS 113), (anon_sym_try, ACTIONS 115),
    (anon_sym_with, ACTIONS 117), (anon_sym_def, ACTIONS 119), (anon_sym_fn, ACTIONS 119),
    (anon_sym_LBRACK, ACTIONS 59), (anon_sym_LBRACE, ACTIONS 61), (anon_sym_global, ACTIONS 63),
    (anon_sym_nonlocal, ACTIONS 65), (anon_sym_exec, ACTIONS 67), (anon_sym_type, ACTIONS 69),
    (anon_sym_class, ACTIONS 121), (anon_sym_struct, ACTIONS 121), (anon_sym_mut, ACTIONS 73),
    (anon_sym_out, ACTIONS 73), (anon_sym_trait, ACTIONS 123), (anon_sym_AT, ACTIONS 77),
    (anon_sym_DASH, ACTIONS 79), (anon_sym_PLUS, ACTIONS 79), (anon_sym_ref, ACTIONS 81),
    (anon_sym_var, ACTIONS 81), (anon_sym_not, ACTIONS 83), (anon_sym_TILDE, ACTIONS 79),
    (anon_sym_lambda, ACTIONS 85), (anon_sym_yield, ACTIONS 87), (sym_ellipsis, ACTIONS 89),
    (anon_sym___mlir_type, ACTIONS 91), (sym_integer, ACTIONS 93), (sym_float, ACTIONS 89),
    (anon_sym_await, ACTIONS 95), (sym_true, ACTIONS 93), (sym_false, ACTIONS 93),
    (sym_none, ACTIONS 93), (sym_comment, ACTIONS 3), (sym_line_continuation, ACTIONS 3),
    (sym__dedent, ACTIONS 129), (sym_string_start, ACTIONS 97)]"

definition parse_table_247 :: "(nat \<times> nat) list" where "parse_table_247 = [
    (sym__statement, STATE 925), (sym__simple_statements, STATE 925),
    (sym_import_statement, STATE 11814), (sym_future_import_statement, STATE 11814),
    (sym_import_from_statement, STATE 11814), (sym_print_statement, STATE 11814),
    (sym_assert_statement, STATE 11814), (sym_comptime_assert_statement, STATE 11814),
    (sym_expression_statement, STATE 11814), (sym_tuple_expression, STATE 12425),
    (sym_named_expression, STATE 7969), (sym__named_expression_lhs, STATE 12752),
    (sym_return_statement, STATE 11814), (sym_delete_statement, STATE 11814),
    (sym_raise_statement, STATE 11814), (sym_pass_statement, STATE 11814),
    (sym_break_statement, STATE 11814), (sym_continue_statement, STATE 11814),
    (sym_extension_definition, STATE 925), (sym_mlir_region, STATE 925),
    (sym_comptime_statement, STATE 925), (sym_if_statement, STATE 925),
    (sym_match_statement, STATE 925), (sym_for_statement, STATE 925),
    (sym_while_statement, STATE 925), (sym_try_statement, STATE 925),
    (sym_with_statement, STATE 925), (sym_function_definition, STATE 925),
    (sym_global_statement, STATE 11814), (sym_nonlocal_statement, STATE 11814),
    (sym_exec_statement, STATE 11814), (sym_type_alias_statement, STATE 11814),
    (sym_parameterized_alias_statement, STATE 11814), (sym_class_definition, STATE 925),
    (sym_trait_definition, STATE 925), (sym_decorated_definition, STATE 925),
    (sym_decorator, STATE 3670), (sym_block, STATE 5359), (sym_pattern, STATE 8086),
    (sym_tuple_pattern, STATE 8101), (sym_list_pattern, STATE 8101),
    (sym_list_splat_pattern, STATE 6819), (sym_as_pattern, STATE 7969),
    (sym_expression, STATE 9883), (sym_primary_expression, STATE 7326),
    (sym_comptime_expression, STATE 7017), (sym_transfer_expression, STATE 7017),
    (sym_not_operator, STATE 7969), (sym_boolean_operator, STATE 7969),
    (sym_binary_operator, STATE 7017), (sym_unary_operator, STATE 7017),
    (sym_comparison_operator, STATE 7969), (sym_lambda, STATE 7969),
    (sym_assignment, STATE 12425), (sym_augmented_assignment, STATE 12425),
    (sym_pattern_list, STATE 8578), (sym_yield, STATE 12425), (sym_attribute, STATE 6836),
    (sym_subscript, STATE 6838), (sym_call, STATE 6845), (sym_mlir_type, STATE 7017),
    (sym_list, STATE 7017), (sym_set, STATE 7017), (sym_tuple, STATE 7017),
    (sym_dictionary, STATE 7017), (sym_struct_literal, STATE 7017),
    (sym_list_comprehension, STATE 7017), (sym_dictionary_comprehension, STATE 7017),
    (sym_set_comprehension, STATE 7017), (sym_generator_expression, STATE 7017),
    (sym_parenthesized_expression, STATE 7017), (sym_conditional_expression, STATE 7969),
    (sym_concatenated_string, STATE 7017), (sym_string, STATE 6751), (sym_await, STATE 7017),
    (aux_sym_module_repeat1, STATE 925), (aux_sym_decorated_definition_repeat1, STATE 3670),
    (sym_identifier, ACTIONS 9), (anon_sym_import, ACTIONS 11), (anon_sym_from, ACTIONS 13),
    (anon_sym_LPAREN, ACTIONS 15), (anon_sym_STAR, ACTIONS 17), (anon_sym_print, ACTIONS 19),
    (anon_sym_comptime, ACTIONS 99), (anon_sym_assert, ACTIONS 23),
    (anon_sym___comptime_assert, ACTIONS 25), (anon_sym_return, ACTIONS 27),
    (anon_sym_del, ACTIONS 29), (anon_sym_raise, ACTIONS 31), (anon_sym_pass, ACTIONS 33),
    (anon_sym_break, ACTIONS 35), (anon_sym_continue, ACTIONS 37),
    (anon_sym___extension, ACTIONS 101), (anon_sym___mlir_region, ACTIONS 103),
    (anon_sym_if, ACTIONS 105), (anon_sym_match, ACTIONS 107), (anon_sym_async, ACTIONS 109),
    (anon_sym_for, ACTIONS 111), (anon_sym_while, ACTIONS 113), (anon_sym_try, ACTIONS 115),
    (anon_sym_with, ACTIONS 117), (anon_sym_def, ACTIONS 119), (anon_sym_fn, ACTIONS 119),
    (anon_sym_LBRACK, ACTIONS 59), (anon_sym_LBRACE, ACTIONS 61), (anon_sym_global, ACTIONS 63),
    (anon_sym_nonlocal, ACTIONS 65), (anon_sym_exec, ACTIONS 67), (anon_sym_type, ACTIONS 69),
    (anon_sym_class, ACTIONS 121), (anon_sym_struct, ACTIONS 121), (anon_sym_mut, ACTIONS 73),
    (anon_sym_out, ACTIONS 73), (anon_sym_trait, ACTIONS 123), (anon_sym_AT, ACTIONS 77),
    (anon_sym_DASH, ACTIONS 79), (anon_sym_PLUS, ACTIONS 79), (anon_sym_ref, ACTIONS 81),
    (anon_sym_var, ACTIONS 81), (anon_sym_not, ACTIONS 83), (anon_sym_TILDE, ACTIONS 79),
    (anon_sym_lambda, ACTIONS 85), (anon_sym_yield, ACTIONS 87), (sym_ellipsis, ACTIONS 89),
    (anon_sym___mlir_type, ACTIONS 91), (sym_integer, ACTIONS 93), (sym_float, ACTIONS 89),
    (anon_sym_await, ACTIONS 95), (sym_true, ACTIONS 93), (sym_false, ACTIONS 93),
    (sym_none, ACTIONS 93), (sym_comment, ACTIONS 3), (sym_line_continuation, ACTIONS 3),
    (sym__dedent, ACTIONS 129), (sym_string_start, ACTIONS 97)]"

definition parse_table_248 :: "(nat \<times> nat) list" where "parse_table_248 = [
    (sym__statement, STATE 925), (sym__simple_statements, STATE 925),
    (sym_import_statement, STATE 11814), (sym_future_import_statement, STATE 11814),
    (sym_import_from_statement, STATE 11814), (sym_print_statement, STATE 11814),
    (sym_assert_statement, STATE 11814), (sym_comptime_assert_statement, STATE 11814),
    (sym_expression_statement, STATE 11814), (sym_tuple_expression, STATE 12425),
    (sym_named_expression, STATE 7969), (sym__named_expression_lhs, STATE 12752),
    (sym_return_statement, STATE 11814), (sym_delete_statement, STATE 11814),
    (sym_raise_statement, STATE 11814), (sym_pass_statement, STATE 11814),
    (sym_break_statement, STATE 11814), (sym_continue_statement, STATE 11814),
    (sym_extension_definition, STATE 925), (sym_mlir_region, STATE 925),
    (sym_comptime_statement, STATE 925), (sym_if_statement, STATE 925),
    (sym_match_statement, STATE 925), (sym_for_statement, STATE 925),
    (sym_while_statement, STATE 925), (sym_try_statement, STATE 925),
    (sym_with_statement, STATE 925), (sym_function_definition, STATE 925),
    (sym_global_statement, STATE 11814), (sym_nonlocal_statement, STATE 11814),
    (sym_exec_statement, STATE 11814), (sym_type_alias_statement, STATE 11814),
    (sym_parameterized_alias_statement, STATE 11814), (sym_class_definition, STATE 925),
    (sym_trait_definition, STATE 925), (sym_decorated_definition, STATE 925),
    (sym_decorator, STATE 3670), (sym_block, STATE 5364), (sym_pattern, STATE 8086),
    (sym_tuple_pattern, STATE 8101), (sym_list_pattern, STATE 8101),
    (sym_list_splat_pattern, STATE 6819), (sym_as_pattern, STATE 7969),
    (sym_expression, STATE 9883), (sym_primary_expression, STATE 7326),
    (sym_comptime_expression, STATE 7017), (sym_transfer_expression, STATE 7017),
    (sym_not_operator, STATE 7969), (sym_boolean_operator, STATE 7969),
    (sym_binary_operator, STATE 7017), (sym_unary_operator, STATE 7017),
    (sym_comparison_operator, STATE 7969), (sym_lambda, STATE 7969),
    (sym_assignment, STATE 12425), (sym_augmented_assignment, STATE 12425),
    (sym_pattern_list, STATE 8578), (sym_yield, STATE 12425), (sym_attribute, STATE 6836),
    (sym_subscript, STATE 6838), (sym_call, STATE 6845), (sym_mlir_type, STATE 7017),
    (sym_list, STATE 7017), (sym_set, STATE 7017), (sym_tuple, STATE 7017),
    (sym_dictionary, STATE 7017), (sym_struct_literal, STATE 7017),
    (sym_list_comprehension, STATE 7017), (sym_dictionary_comprehension, STATE 7017),
    (sym_set_comprehension, STATE 7017), (sym_generator_expression, STATE 7017),
    (sym_parenthesized_expression, STATE 7017), (sym_conditional_expression, STATE 7969),
    (sym_concatenated_string, STATE 7017), (sym_string, STATE 6751), (sym_await, STATE 7017),
    (aux_sym_module_repeat1, STATE 925), (aux_sym_decorated_definition_repeat1, STATE 3670),
    (sym_identifier, ACTIONS 9), (anon_sym_import, ACTIONS 11), (anon_sym_from, ACTIONS 13),
    (anon_sym_LPAREN, ACTIONS 15), (anon_sym_STAR, ACTIONS 17), (anon_sym_print, ACTIONS 19),
    (anon_sym_comptime, ACTIONS 99), (anon_sym_assert, ACTIONS 23),
    (anon_sym___comptime_assert, ACTIONS 25), (anon_sym_return, ACTIONS 27),
    (anon_sym_del, ACTIONS 29), (anon_sym_raise, ACTIONS 31), (anon_sym_pass, ACTIONS 33),
    (anon_sym_break, ACTIONS 35), (anon_sym_continue, ACTIONS 37),
    (anon_sym___extension, ACTIONS 101), (anon_sym___mlir_region, ACTIONS 103),
    (anon_sym_if, ACTIONS 105), (anon_sym_match, ACTIONS 107), (anon_sym_async, ACTIONS 109),
    (anon_sym_for, ACTIONS 111), (anon_sym_while, ACTIONS 113), (anon_sym_try, ACTIONS 115),
    (anon_sym_with, ACTIONS 117), (anon_sym_def, ACTIONS 119), (anon_sym_fn, ACTIONS 119),
    (anon_sym_LBRACK, ACTIONS 59), (anon_sym_LBRACE, ACTIONS 61), (anon_sym_global, ACTIONS 63),
    (anon_sym_nonlocal, ACTIONS 65), (anon_sym_exec, ACTIONS 67), (anon_sym_type, ACTIONS 69),
    (anon_sym_class, ACTIONS 121), (anon_sym_struct, ACTIONS 121), (anon_sym_mut, ACTIONS 73),
    (anon_sym_out, ACTIONS 73), (anon_sym_trait, ACTIONS 123), (anon_sym_AT, ACTIONS 77),
    (anon_sym_DASH, ACTIONS 79), (anon_sym_PLUS, ACTIONS 79), (anon_sym_ref, ACTIONS 81),
    (anon_sym_var, ACTIONS 81), (anon_sym_not, ACTIONS 83), (anon_sym_TILDE, ACTIONS 79),
    (anon_sym_lambda, ACTIONS 85), (anon_sym_yield, ACTIONS 87), (sym_ellipsis, ACTIONS 89),
    (anon_sym___mlir_type, ACTIONS 91), (sym_integer, ACTIONS 93), (sym_float, ACTIONS 89),
    (anon_sym_await, ACTIONS 95), (sym_true, ACTIONS 93), (sym_false, ACTIONS 93),
    (sym_none, ACTIONS 93), (sym_comment, ACTIONS 3), (sym_line_continuation, ACTIONS 3),
    (sym__dedent, ACTIONS 129), (sym_string_start, ACTIONS 97)]"

definition parse_table_249 :: "(nat \<times> nat) list" where "parse_table_249 = [
    (sym__statement, STATE 925), (sym__simple_statements, STATE 925),
    (sym_import_statement, STATE 11814), (sym_future_import_statement, STATE 11814),
    (sym_import_from_statement, STATE 11814), (sym_print_statement, STATE 11814),
    (sym_assert_statement, STATE 11814), (sym_comptime_assert_statement, STATE 11814),
    (sym_expression_statement, STATE 11814), (sym_tuple_expression, STATE 12425),
    (sym_named_expression, STATE 7969), (sym__named_expression_lhs, STATE 12752),
    (sym_return_statement, STATE 11814), (sym_delete_statement, STATE 11814),
    (sym_raise_statement, STATE 11814), (sym_pass_statement, STATE 11814),
    (sym_break_statement, STATE 11814), (sym_continue_statement, STATE 11814),
    (sym_extension_definition, STATE 925), (sym_mlir_region, STATE 925),
    (sym_comptime_statement, STATE 925), (sym_if_statement, STATE 925),
    (sym_match_statement, STATE 925), (sym_for_statement, STATE 925),
    (sym_while_statement, STATE 925), (sym_try_statement, STATE 925),
    (sym_with_statement, STATE 925), (sym_function_definition, STATE 925),
    (sym_global_statement, STATE 11814), (sym_nonlocal_statement, STATE 11814),
    (sym_exec_statement, STATE 11814), (sym_type_alias_statement, STATE 11814),
    (sym_parameterized_alias_statement, STATE 11814), (sym_class_definition, STATE 925),
    (sym_trait_definition, STATE 925), (sym_decorated_definition, STATE 925),
    (sym_decorator, STATE 3670), (sym_block, STATE 5374), (sym_pattern, STATE 8086),
    (sym_tuple_pattern, STATE 8101), (sym_list_pattern, STATE 8101),
    (sym_list_splat_pattern, STATE 6819), (sym_as_pattern, STATE 7969),
    (sym_expression, STATE 9883), (sym_primary_expression, STATE 7326),
    (sym_comptime_expression, STATE 7017), (sym_transfer_expression, STATE 7017),
    (sym_not_operator, STATE 7969), (sym_boolean_operator, STATE 7969),
    (sym_binary_operator, STATE 7017), (sym_unary_operator, STATE 7017),
    (sym_comparison_operator, STATE 7969), (sym_lambda, STATE 7969),
    (sym_assignment, STATE 12425), (sym_augmented_assignment, STATE 12425),
    (sym_pattern_list, STATE 8578), (sym_yield, STATE 12425), (sym_attribute, STATE 6836),
    (sym_subscript, STATE 6838), (sym_call, STATE 6845), (sym_mlir_type, STATE 7017),
    (sym_list, STATE 7017), (sym_set, STATE 7017), (sym_tuple, STATE 7017),
    (sym_dictionary, STATE 7017), (sym_struct_literal, STATE 7017),
    (sym_list_comprehension, STATE 7017), (sym_dictionary_comprehension, STATE 7017),
    (sym_set_comprehension, STATE 7017), (sym_generator_expression, STATE 7017),
    (sym_parenthesized_expression, STATE 7017), (sym_conditional_expression, STATE 7969),
    (sym_concatenated_string, STATE 7017), (sym_string, STATE 6751), (sym_await, STATE 7017),
    (aux_sym_module_repeat1, STATE 925), (aux_sym_decorated_definition_repeat1, STATE 3670),
    (sym_identifier, ACTIONS 9), (anon_sym_import, ACTIONS 11), (anon_sym_from, ACTIONS 13),
    (anon_sym_LPAREN, ACTIONS 15), (anon_sym_STAR, ACTIONS 17), (anon_sym_print, ACTIONS 19),
    (anon_sym_comptime, ACTIONS 99), (anon_sym_assert, ACTIONS 23),
    (anon_sym___comptime_assert, ACTIONS 25), (anon_sym_return, ACTIONS 27),
    (anon_sym_del, ACTIONS 29), (anon_sym_raise, ACTIONS 31), (anon_sym_pass, ACTIONS 33),
    (anon_sym_break, ACTIONS 35), (anon_sym_continue, ACTIONS 37),
    (anon_sym___extension, ACTIONS 101), (anon_sym___mlir_region, ACTIONS 103),
    (anon_sym_if, ACTIONS 105), (anon_sym_match, ACTIONS 107), (anon_sym_async, ACTIONS 109),
    (anon_sym_for, ACTIONS 111), (anon_sym_while, ACTIONS 113), (anon_sym_try, ACTIONS 115),
    (anon_sym_with, ACTIONS 117), (anon_sym_def, ACTIONS 119), (anon_sym_fn, ACTIONS 119),
    (anon_sym_LBRACK, ACTIONS 59), (anon_sym_LBRACE, ACTIONS 61), (anon_sym_global, ACTIONS 63),
    (anon_sym_nonlocal, ACTIONS 65), (anon_sym_exec, ACTIONS 67), (anon_sym_type, ACTIONS 69),
    (anon_sym_class, ACTIONS 121), (anon_sym_struct, ACTIONS 121), (anon_sym_mut, ACTIONS 73),
    (anon_sym_out, ACTIONS 73), (anon_sym_trait, ACTIONS 123), (anon_sym_AT, ACTIONS 77),
    (anon_sym_DASH, ACTIONS 79), (anon_sym_PLUS, ACTIONS 79), (anon_sym_ref, ACTIONS 81),
    (anon_sym_var, ACTIONS 81), (anon_sym_not, ACTIONS 83), (anon_sym_TILDE, ACTIONS 79),
    (anon_sym_lambda, ACTIONS 85), (anon_sym_yield, ACTIONS 87), (sym_ellipsis, ACTIONS 89),
    (anon_sym___mlir_type, ACTIONS 91), (sym_integer, ACTIONS 93), (sym_float, ACTIONS 89),
    (anon_sym_await, ACTIONS 95), (sym_true, ACTIONS 93), (sym_false, ACTIONS 93),
    (sym_none, ACTIONS 93), (sym_comment, ACTIONS 3), (sym_line_continuation, ACTIONS 3),
    (sym__dedent, ACTIONS 129), (sym_string_start, ACTIONS 97)]"

definition parse_table_250 :: "(nat \<times> nat) list" where "parse_table_250 = [
    (sym__statement, STATE 925), (sym__simple_statements, STATE 925),
    (sym_import_statement, STATE 11814), (sym_future_import_statement, STATE 11814),
    (sym_import_from_statement, STATE 11814), (sym_print_statement, STATE 11814),
    (sym_assert_statement, STATE 11814), (sym_comptime_assert_statement, STATE 11814),
    (sym_expression_statement, STATE 11814), (sym_tuple_expression, STATE 12425),
    (sym_named_expression, STATE 7969), (sym__named_expression_lhs, STATE 12752),
    (sym_return_statement, STATE 11814), (sym_delete_statement, STATE 11814),
    (sym_raise_statement, STATE 11814), (sym_pass_statement, STATE 11814),
    (sym_break_statement, STATE 11814), (sym_continue_statement, STATE 11814),
    (sym_extension_definition, STATE 925), (sym_mlir_region, STATE 925),
    (sym_comptime_statement, STATE 925), (sym_if_statement, STATE 925),
    (sym_match_statement, STATE 925), (sym_for_statement, STATE 925),
    (sym_while_statement, STATE 925), (sym_try_statement, STATE 925),
    (sym_with_statement, STATE 925), (sym_function_definition, STATE 925),
    (sym_global_statement, STATE 11814), (sym_nonlocal_statement, STATE 11814),
    (sym_exec_statement, STATE 11814), (sym_type_alias_statement, STATE 11814),
    (sym_parameterized_alias_statement, STATE 11814), (sym_class_definition, STATE 925),
    (sym_trait_definition, STATE 925), (sym_decorated_definition, STATE 925),
    (sym_decorator, STATE 3670), (sym_block, STATE 5381), (sym_pattern, STATE 8086),
    (sym_tuple_pattern, STATE 8101), (sym_list_pattern, STATE 8101),
    (sym_list_splat_pattern, STATE 6819), (sym_as_pattern, STATE 7969),
    (sym_expression, STATE 9883), (sym_primary_expression, STATE 7326),
    (sym_comptime_expression, STATE 7017), (sym_transfer_expression, STATE 7017),
    (sym_not_operator, STATE 7969), (sym_boolean_operator, STATE 7969),
    (sym_binary_operator, STATE 7017), (sym_unary_operator, STATE 7017),
    (sym_comparison_operator, STATE 7969), (sym_lambda, STATE 7969),
    (sym_assignment, STATE 12425), (sym_augmented_assignment, STATE 12425),
    (sym_pattern_list, STATE 8578), (sym_yield, STATE 12425), (sym_attribute, STATE 6836),
    (sym_subscript, STATE 6838), (sym_call, STATE 6845), (sym_mlir_type, STATE 7017),
    (sym_list, STATE 7017), (sym_set, STATE 7017), (sym_tuple, STATE 7017),
    (sym_dictionary, STATE 7017), (sym_struct_literal, STATE 7017),
    (sym_list_comprehension, STATE 7017), (sym_dictionary_comprehension, STATE 7017),
    (sym_set_comprehension, STATE 7017), (sym_generator_expression, STATE 7017),
    (sym_parenthesized_expression, STATE 7017), (sym_conditional_expression, STATE 7969),
    (sym_concatenated_string, STATE 7017), (sym_string, STATE 6751), (sym_await, STATE 7017),
    (aux_sym_module_repeat1, STATE 925), (aux_sym_decorated_definition_repeat1, STATE 3670),
    (sym_identifier, ACTIONS 9), (anon_sym_import, ACTIONS 11), (anon_sym_from, ACTIONS 13),
    (anon_sym_LPAREN, ACTIONS 15), (anon_sym_STAR, ACTIONS 17), (anon_sym_print, ACTIONS 19),
    (anon_sym_comptime, ACTIONS 99), (anon_sym_assert, ACTIONS 23),
    (anon_sym___comptime_assert, ACTIONS 25), (anon_sym_return, ACTIONS 27),
    (anon_sym_del, ACTIONS 29), (anon_sym_raise, ACTIONS 31), (anon_sym_pass, ACTIONS 33),
    (anon_sym_break, ACTIONS 35), (anon_sym_continue, ACTIONS 37),
    (anon_sym___extension, ACTIONS 101), (anon_sym___mlir_region, ACTIONS 103),
    (anon_sym_if, ACTIONS 105), (anon_sym_match, ACTIONS 107), (anon_sym_async, ACTIONS 109),
    (anon_sym_for, ACTIONS 111), (anon_sym_while, ACTIONS 113), (anon_sym_try, ACTIONS 115),
    (anon_sym_with, ACTIONS 117), (anon_sym_def, ACTIONS 119), (anon_sym_fn, ACTIONS 119),
    (anon_sym_LBRACK, ACTIONS 59), (anon_sym_LBRACE, ACTIONS 61), (anon_sym_global, ACTIONS 63),
    (anon_sym_nonlocal, ACTIONS 65), (anon_sym_exec, ACTIONS 67), (anon_sym_type, ACTIONS 69),
    (anon_sym_class, ACTIONS 121), (anon_sym_struct, ACTIONS 121), (anon_sym_mut, ACTIONS 73),
    (anon_sym_out, ACTIONS 73), (anon_sym_trait, ACTIONS 123), (anon_sym_AT, ACTIONS 77),
    (anon_sym_DASH, ACTIONS 79), (anon_sym_PLUS, ACTIONS 79), (anon_sym_ref, ACTIONS 81),
    (anon_sym_var, ACTIONS 81), (anon_sym_not, ACTIONS 83), (anon_sym_TILDE, ACTIONS 79),
    (anon_sym_lambda, ACTIONS 85), (anon_sym_yield, ACTIONS 87), (sym_ellipsis, ACTIONS 89),
    (anon_sym___mlir_type, ACTIONS 91), (sym_integer, ACTIONS 93), (sym_float, ACTIONS 89),
    (anon_sym_await, ACTIONS 95), (sym_true, ACTIONS 93), (sym_false, ACTIONS 93),
    (sym_none, ACTIONS 93), (sym_comment, ACTIONS 3), (sym_line_continuation, ACTIONS 3),
    (sym__dedent, ACTIONS 129), (sym_string_start, ACTIONS 97)]"

definition parse_table_251 :: "(nat \<times> nat) list" where "parse_table_251 = [
    (sym__statement, STATE 925), (sym__simple_statements, STATE 925),
    (sym_import_statement, STATE 11814), (sym_future_import_statement, STATE 11814),
    (sym_import_from_statement, STATE 11814), (sym_print_statement, STATE 11814),
    (sym_assert_statement, STATE 11814), (sym_comptime_assert_statement, STATE 11814),
    (sym_expression_statement, STATE 11814), (sym_tuple_expression, STATE 12425),
    (sym_named_expression, STATE 7969), (sym__named_expression_lhs, STATE 12752),
    (sym_return_statement, STATE 11814), (sym_delete_statement, STATE 11814),
    (sym_raise_statement, STATE 11814), (sym_pass_statement, STATE 11814),
    (sym_break_statement, STATE 11814), (sym_continue_statement, STATE 11814),
    (sym_extension_definition, STATE 925), (sym_mlir_region, STATE 925),
    (sym_comptime_statement, STATE 925), (sym_if_statement, STATE 925),
    (sym_match_statement, STATE 925), (sym_for_statement, STATE 925),
    (sym_while_statement, STATE 925), (sym_try_statement, STATE 925),
    (sym_with_statement, STATE 925), (sym_function_definition, STATE 925),
    (sym_global_statement, STATE 11814), (sym_nonlocal_statement, STATE 11814),
    (sym_exec_statement, STATE 11814), (sym_type_alias_statement, STATE 11814),
    (sym_parameterized_alias_statement, STATE 11814), (sym_class_definition, STATE 925),
    (sym_trait_definition, STATE 925), (sym_decorated_definition, STATE 925),
    (sym_decorator, STATE 3670), (sym_block, STATE 5382), (sym_pattern, STATE 8086),
    (sym_tuple_pattern, STATE 8101), (sym_list_pattern, STATE 8101),
    (sym_list_splat_pattern, STATE 6819), (sym_as_pattern, STATE 7969),
    (sym_expression, STATE 9883), (sym_primary_expression, STATE 7326),
    (sym_comptime_expression, STATE 7017), (sym_transfer_expression, STATE 7017),
    (sym_not_operator, STATE 7969), (sym_boolean_operator, STATE 7969),
    (sym_binary_operator, STATE 7017), (sym_unary_operator, STATE 7017),
    (sym_comparison_operator, STATE 7969), (sym_lambda, STATE 7969),
    (sym_assignment, STATE 12425), (sym_augmented_assignment, STATE 12425),
    (sym_pattern_list, STATE 8578), (sym_yield, STATE 12425), (sym_attribute, STATE 6836),
    (sym_subscript, STATE 6838), (sym_call, STATE 6845), (sym_mlir_type, STATE 7017),
    (sym_list, STATE 7017), (sym_set, STATE 7017), (sym_tuple, STATE 7017),
    (sym_dictionary, STATE 7017), (sym_struct_literal, STATE 7017),
    (sym_list_comprehension, STATE 7017), (sym_dictionary_comprehension, STATE 7017),
    (sym_set_comprehension, STATE 7017), (sym_generator_expression, STATE 7017),
    (sym_parenthesized_expression, STATE 7017), (sym_conditional_expression, STATE 7969),
    (sym_concatenated_string, STATE 7017), (sym_string, STATE 6751), (sym_await, STATE 7017),
    (aux_sym_module_repeat1, STATE 925), (aux_sym_decorated_definition_repeat1, STATE 3670),
    (sym_identifier, ACTIONS 9), (anon_sym_import, ACTIONS 11), (anon_sym_from, ACTIONS 13),
    (anon_sym_LPAREN, ACTIONS 15), (anon_sym_STAR, ACTIONS 17), (anon_sym_print, ACTIONS 19),
    (anon_sym_comptime, ACTIONS 99), (anon_sym_assert, ACTIONS 23),
    (anon_sym___comptime_assert, ACTIONS 25), (anon_sym_return, ACTIONS 27),
    (anon_sym_del, ACTIONS 29), (anon_sym_raise, ACTIONS 31), (anon_sym_pass, ACTIONS 33),
    (anon_sym_break, ACTIONS 35), (anon_sym_continue, ACTIONS 37),
    (anon_sym___extension, ACTIONS 101), (anon_sym___mlir_region, ACTIONS 103),
    (anon_sym_if, ACTIONS 105), (anon_sym_match, ACTIONS 107), (anon_sym_async, ACTIONS 109),
    (anon_sym_for, ACTIONS 111), (anon_sym_while, ACTIONS 113), (anon_sym_try, ACTIONS 115),
    (anon_sym_with, ACTIONS 117), (anon_sym_def, ACTIONS 119), (anon_sym_fn, ACTIONS 119),
    (anon_sym_LBRACK, ACTIONS 59), (anon_sym_LBRACE, ACTIONS 61), (anon_sym_global, ACTIONS 63),
    (anon_sym_nonlocal, ACTIONS 65), (anon_sym_exec, ACTIONS 67), (anon_sym_type, ACTIONS 69),
    (anon_sym_class, ACTIONS 121), (anon_sym_struct, ACTIONS 121), (anon_sym_mut, ACTIONS 73),
    (anon_sym_out, ACTIONS 73), (anon_sym_trait, ACTIONS 123), (anon_sym_AT, ACTIONS 77),
    (anon_sym_DASH, ACTIONS 79), (anon_sym_PLUS, ACTIONS 79), (anon_sym_ref, ACTIONS 81),
    (anon_sym_var, ACTIONS 81), (anon_sym_not, ACTIONS 83), (anon_sym_TILDE, ACTIONS 79),
    (anon_sym_lambda, ACTIONS 85), (anon_sym_yield, ACTIONS 87), (sym_ellipsis, ACTIONS 89),
    (anon_sym___mlir_type, ACTIONS 91), (sym_integer, ACTIONS 93), (sym_float, ACTIONS 89),
    (anon_sym_await, ACTIONS 95), (sym_true, ACTIONS 93), (sym_false, ACTIONS 93),
    (sym_none, ACTIONS 93), (sym_comment, ACTIONS 3), (sym_line_continuation, ACTIONS 3),
    (sym__dedent, ACTIONS 129), (sym_string_start, ACTIONS 97)]"

definition parse_table_252 :: "(nat \<times> nat) list" where "parse_table_252 = [
    (sym__statement, STATE 925), (sym__simple_statements, STATE 925),
    (sym_import_statement, STATE 11814), (sym_future_import_statement, STATE 11814),
    (sym_import_from_statement, STATE 11814), (sym_print_statement, STATE 11814),
    (sym_assert_statement, STATE 11814), (sym_comptime_assert_statement, STATE 11814),
    (sym_expression_statement, STATE 11814), (sym_tuple_expression, STATE 12425),
    (sym_named_expression, STATE 7969), (sym__named_expression_lhs, STATE 12752),
    (sym_return_statement, STATE 11814), (sym_delete_statement, STATE 11814),
    (sym_raise_statement, STATE 11814), (sym_pass_statement, STATE 11814),
    (sym_break_statement, STATE 11814), (sym_continue_statement, STATE 11814),
    (sym_extension_definition, STATE 925), (sym_mlir_region, STATE 925),
    (sym_comptime_statement, STATE 925), (sym_if_statement, STATE 925),
    (sym_match_statement, STATE 925), (sym_for_statement, STATE 925),
    (sym_while_statement, STATE 925), (sym_try_statement, STATE 925),
    (sym_with_statement, STATE 925), (sym_function_definition, STATE 925),
    (sym_global_statement, STATE 11814), (sym_nonlocal_statement, STATE 11814),
    (sym_exec_statement, STATE 11814), (sym_type_alias_statement, STATE 11814),
    (sym_parameterized_alias_statement, STATE 11814), (sym_class_definition, STATE 925),
    (sym_trait_definition, STATE 925), (sym_decorated_definition, STATE 925),
    (sym_decorator, STATE 3670), (sym_block, STATE 5385), (sym_pattern, STATE 8086),
    (sym_tuple_pattern, STATE 8101), (sym_list_pattern, STATE 8101),
    (sym_list_splat_pattern, STATE 6819), (sym_as_pattern, STATE 7969),
    (sym_expression, STATE 9883), (sym_primary_expression, STATE 7326),
    (sym_comptime_expression, STATE 7017), (sym_transfer_expression, STATE 7017),
    (sym_not_operator, STATE 7969), (sym_boolean_operator, STATE 7969),
    (sym_binary_operator, STATE 7017), (sym_unary_operator, STATE 7017),
    (sym_comparison_operator, STATE 7969), (sym_lambda, STATE 7969),
    (sym_assignment, STATE 12425), (sym_augmented_assignment, STATE 12425),
    (sym_pattern_list, STATE 8578), (sym_yield, STATE 12425), (sym_attribute, STATE 6836),
    (sym_subscript, STATE 6838), (sym_call, STATE 6845), (sym_mlir_type, STATE 7017),
    (sym_list, STATE 7017), (sym_set, STATE 7017), (sym_tuple, STATE 7017),
    (sym_dictionary, STATE 7017), (sym_struct_literal, STATE 7017),
    (sym_list_comprehension, STATE 7017), (sym_dictionary_comprehension, STATE 7017),
    (sym_set_comprehension, STATE 7017), (sym_generator_expression, STATE 7017),
    (sym_parenthesized_expression, STATE 7017), (sym_conditional_expression, STATE 7969),
    (sym_concatenated_string, STATE 7017), (sym_string, STATE 6751), (sym_await, STATE 7017),
    (aux_sym_module_repeat1, STATE 925), (aux_sym_decorated_definition_repeat1, STATE 3670),
    (sym_identifier, ACTIONS 9), (anon_sym_import, ACTIONS 11), (anon_sym_from, ACTIONS 13),
    (anon_sym_LPAREN, ACTIONS 15), (anon_sym_STAR, ACTIONS 17), (anon_sym_print, ACTIONS 19),
    (anon_sym_comptime, ACTIONS 99), (anon_sym_assert, ACTIONS 23),
    (anon_sym___comptime_assert, ACTIONS 25), (anon_sym_return, ACTIONS 27),
    (anon_sym_del, ACTIONS 29), (anon_sym_raise, ACTIONS 31), (anon_sym_pass, ACTIONS 33),
    (anon_sym_break, ACTIONS 35), (anon_sym_continue, ACTIONS 37),
    (anon_sym___extension, ACTIONS 101), (anon_sym___mlir_region, ACTIONS 103),
    (anon_sym_if, ACTIONS 105), (anon_sym_match, ACTIONS 107), (anon_sym_async, ACTIONS 109),
    (anon_sym_for, ACTIONS 111), (anon_sym_while, ACTIONS 113), (anon_sym_try, ACTIONS 115),
    (anon_sym_with, ACTIONS 117), (anon_sym_def, ACTIONS 119), (anon_sym_fn, ACTIONS 119),
    (anon_sym_LBRACK, ACTIONS 59), (anon_sym_LBRACE, ACTIONS 61), (anon_sym_global, ACTIONS 63),
    (anon_sym_nonlocal, ACTIONS 65), (anon_sym_exec, ACTIONS 67), (anon_sym_type, ACTIONS 69),
    (anon_sym_class, ACTIONS 121), (anon_sym_struct, ACTIONS 121), (anon_sym_mut, ACTIONS 73),
    (anon_sym_out, ACTIONS 73), (anon_sym_trait, ACTIONS 123), (anon_sym_AT, ACTIONS 77),
    (anon_sym_DASH, ACTIONS 79), (anon_sym_PLUS, ACTIONS 79), (anon_sym_ref, ACTIONS 81),
    (anon_sym_var, ACTIONS 81), (anon_sym_not, ACTIONS 83), (anon_sym_TILDE, ACTIONS 79),
    (anon_sym_lambda, ACTIONS 85), (anon_sym_yield, ACTIONS 87), (sym_ellipsis, ACTIONS 89),
    (anon_sym___mlir_type, ACTIONS 91), (sym_integer, ACTIONS 93), (sym_float, ACTIONS 89),
    (anon_sym_await, ACTIONS 95), (sym_true, ACTIONS 93), (sym_false, ACTIONS 93),
    (sym_none, ACTIONS 93), (sym_comment, ACTIONS 3), (sym_line_continuation, ACTIONS 3),
    (sym__dedent, ACTIONS 129), (sym_string_start, ACTIONS 97)]"

definition parse_table_253 :: "(nat \<times> nat) list" where "parse_table_253 = [
    (sym__statement, STATE 925), (sym__simple_statements, STATE 925),
    (sym_import_statement, STATE 11814), (sym_future_import_statement, STATE 11814),
    (sym_import_from_statement, STATE 11814), (sym_print_statement, STATE 11814),
    (sym_assert_statement, STATE 11814), (sym_comptime_assert_statement, STATE 11814),
    (sym_expression_statement, STATE 11814), (sym_tuple_expression, STATE 12425),
    (sym_named_expression, STATE 7969), (sym__named_expression_lhs, STATE 12752),
    (sym_return_statement, STATE 11814), (sym_delete_statement, STATE 11814),
    (sym_raise_statement, STATE 11814), (sym_pass_statement, STATE 11814),
    (sym_break_statement, STATE 11814), (sym_continue_statement, STATE 11814),
    (sym_extension_definition, STATE 925), (sym_mlir_region, STATE 925),
    (sym_comptime_statement, STATE 925), (sym_if_statement, STATE 925),
    (sym_match_statement, STATE 925), (sym_for_statement, STATE 925),
    (sym_while_statement, STATE 925), (sym_try_statement, STATE 925),
    (sym_with_statement, STATE 925), (sym_function_definition, STATE 925),
    (sym_global_statement, STATE 11814), (sym_nonlocal_statement, STATE 11814),
    (sym_exec_statement, STATE 11814), (sym_type_alias_statement, STATE 11814),
    (sym_parameterized_alias_statement, STATE 11814), (sym_class_definition, STATE 925),
    (sym_trait_definition, STATE 925), (sym_decorated_definition, STATE 925),
    (sym_decorator, STATE 3670), (sym_block, STATE 5393), (sym_pattern, STATE 8086),
    (sym_tuple_pattern, STATE 8101), (sym_list_pattern, STATE 8101),
    (sym_list_splat_pattern, STATE 6819), (sym_as_pattern, STATE 7969),
    (sym_expression, STATE 9883), (sym_primary_expression, STATE 7326),
    (sym_comptime_expression, STATE 7017), (sym_transfer_expression, STATE 7017),
    (sym_not_operator, STATE 7969), (sym_boolean_operator, STATE 7969),
    (sym_binary_operator, STATE 7017), (sym_unary_operator, STATE 7017),
    (sym_comparison_operator, STATE 7969), (sym_lambda, STATE 7969),
    (sym_assignment, STATE 12425), (sym_augmented_assignment, STATE 12425),
    (sym_pattern_list, STATE 8578), (sym_yield, STATE 12425), (sym_attribute, STATE 6836),
    (sym_subscript, STATE 6838), (sym_call, STATE 6845), (sym_mlir_type, STATE 7017),
    (sym_list, STATE 7017), (sym_set, STATE 7017), (sym_tuple, STATE 7017),
    (sym_dictionary, STATE 7017), (sym_struct_literal, STATE 7017),
    (sym_list_comprehension, STATE 7017), (sym_dictionary_comprehension, STATE 7017),
    (sym_set_comprehension, STATE 7017), (sym_generator_expression, STATE 7017),
    (sym_parenthesized_expression, STATE 7017), (sym_conditional_expression, STATE 7969),
    (sym_concatenated_string, STATE 7017), (sym_string, STATE 6751), (sym_await, STATE 7017),
    (aux_sym_module_repeat1, STATE 925), (aux_sym_decorated_definition_repeat1, STATE 3670),
    (sym_identifier, ACTIONS 9), (anon_sym_import, ACTIONS 11), (anon_sym_from, ACTIONS 13),
    (anon_sym_LPAREN, ACTIONS 15), (anon_sym_STAR, ACTIONS 17), (anon_sym_print, ACTIONS 19),
    (anon_sym_comptime, ACTIONS 99), (anon_sym_assert, ACTIONS 23),
    (anon_sym___comptime_assert, ACTIONS 25), (anon_sym_return, ACTIONS 27),
    (anon_sym_del, ACTIONS 29), (anon_sym_raise, ACTIONS 31), (anon_sym_pass, ACTIONS 33),
    (anon_sym_break, ACTIONS 35), (anon_sym_continue, ACTIONS 37),
    (anon_sym___extension, ACTIONS 101), (anon_sym___mlir_region, ACTIONS 103),
    (anon_sym_if, ACTIONS 105), (anon_sym_match, ACTIONS 107), (anon_sym_async, ACTIONS 109),
    (anon_sym_for, ACTIONS 111), (anon_sym_while, ACTIONS 113), (anon_sym_try, ACTIONS 115),
    (anon_sym_with, ACTIONS 117), (anon_sym_def, ACTIONS 119), (anon_sym_fn, ACTIONS 119),
    (anon_sym_LBRACK, ACTIONS 59), (anon_sym_LBRACE, ACTIONS 61), (anon_sym_global, ACTIONS 63),
    (anon_sym_nonlocal, ACTIONS 65), (anon_sym_exec, ACTIONS 67), (anon_sym_type, ACTIONS 69),
    (anon_sym_class, ACTIONS 121), (anon_sym_struct, ACTIONS 121), (anon_sym_mut, ACTIONS 73),
    (anon_sym_out, ACTIONS 73), (anon_sym_trait, ACTIONS 123), (anon_sym_AT, ACTIONS 77),
    (anon_sym_DASH, ACTIONS 79), (anon_sym_PLUS, ACTIONS 79), (anon_sym_ref, ACTIONS 81),
    (anon_sym_var, ACTIONS 81), (anon_sym_not, ACTIONS 83), (anon_sym_TILDE, ACTIONS 79),
    (anon_sym_lambda, ACTIONS 85), (anon_sym_yield, ACTIONS 87), (sym_ellipsis, ACTIONS 89),
    (anon_sym___mlir_type, ACTIONS 91), (sym_integer, ACTIONS 93), (sym_float, ACTIONS 89),
    (anon_sym_await, ACTIONS 95), (sym_true, ACTIONS 93), (sym_false, ACTIONS 93),
    (sym_none, ACTIONS 93), (sym_comment, ACTIONS 3), (sym_line_continuation, ACTIONS 3),
    (sym__dedent, ACTIONS 129), (sym_string_start, ACTIONS 97)]"

definition parse_table_254 :: "(nat \<times> nat) list" where "parse_table_254 = [
    (sym__statement, STATE 925), (sym__simple_statements, STATE 925),
    (sym_import_statement, STATE 11814), (sym_future_import_statement, STATE 11814),
    (sym_import_from_statement, STATE 11814), (sym_print_statement, STATE 11814),
    (sym_assert_statement, STATE 11814), (sym_comptime_assert_statement, STATE 11814),
    (sym_expression_statement, STATE 11814), (sym_tuple_expression, STATE 12425),
    (sym_named_expression, STATE 7969), (sym__named_expression_lhs, STATE 12752),
    (sym_return_statement, STATE 11814), (sym_delete_statement, STATE 11814),
    (sym_raise_statement, STATE 11814), (sym_pass_statement, STATE 11814),
    (sym_break_statement, STATE 11814), (sym_continue_statement, STATE 11814),
    (sym_extension_definition, STATE 925), (sym_mlir_region, STATE 925),
    (sym_comptime_statement, STATE 925), (sym_if_statement, STATE 925),
    (sym_match_statement, STATE 925), (sym_for_statement, STATE 925),
    (sym_while_statement, STATE 925), (sym_try_statement, STATE 925),
    (sym_with_statement, STATE 925), (sym_function_definition, STATE 925),
    (sym_global_statement, STATE 11814), (sym_nonlocal_statement, STATE 11814),
    (sym_exec_statement, STATE 11814), (sym_type_alias_statement, STATE 11814),
    (sym_parameterized_alias_statement, STATE 11814), (sym_class_definition, STATE 925),
    (sym_trait_definition, STATE 925), (sym_decorated_definition, STATE 925),
    (sym_decorator, STATE 3670), (sym_block, STATE 5402), (sym_pattern, STATE 8086),
    (sym_tuple_pattern, STATE 8101), (sym_list_pattern, STATE 8101),
    (sym_list_splat_pattern, STATE 6819), (sym_as_pattern, STATE 7969),
    (sym_expression, STATE 9883), (sym_primary_expression, STATE 7326),
    (sym_comptime_expression, STATE 7017), (sym_transfer_expression, STATE 7017),
    (sym_not_operator, STATE 7969), (sym_boolean_operator, STATE 7969),
    (sym_binary_operator, STATE 7017), (sym_unary_operator, STATE 7017),
    (sym_comparison_operator, STATE 7969), (sym_lambda, STATE 7969),
    (sym_assignment, STATE 12425), (sym_augmented_assignment, STATE 12425),
    (sym_pattern_list, STATE 8578), (sym_yield, STATE 12425), (sym_attribute, STATE 6836),
    (sym_subscript, STATE 6838), (sym_call, STATE 6845), (sym_mlir_type, STATE 7017),
    (sym_list, STATE 7017), (sym_set, STATE 7017), (sym_tuple, STATE 7017),
    (sym_dictionary, STATE 7017), (sym_struct_literal, STATE 7017),
    (sym_list_comprehension, STATE 7017), (sym_dictionary_comprehension, STATE 7017),
    (sym_set_comprehension, STATE 7017), (sym_generator_expression, STATE 7017),
    (sym_parenthesized_expression, STATE 7017), (sym_conditional_expression, STATE 7969),
    (sym_concatenated_string, STATE 7017), (sym_string, STATE 6751), (sym_await, STATE 7017),
    (aux_sym_module_repeat1, STATE 925), (aux_sym_decorated_definition_repeat1, STATE 3670),
    (sym_identifier, ACTIONS 9), (anon_sym_import, ACTIONS 11), (anon_sym_from, ACTIONS 13),
    (anon_sym_LPAREN, ACTIONS 15), (anon_sym_STAR, ACTIONS 17), (anon_sym_print, ACTIONS 19),
    (anon_sym_comptime, ACTIONS 99), (anon_sym_assert, ACTIONS 23),
    (anon_sym___comptime_assert, ACTIONS 25), (anon_sym_return, ACTIONS 27),
    (anon_sym_del, ACTIONS 29), (anon_sym_raise, ACTIONS 31), (anon_sym_pass, ACTIONS 33),
    (anon_sym_break, ACTIONS 35), (anon_sym_continue, ACTIONS 37),
    (anon_sym___extension, ACTIONS 101), (anon_sym___mlir_region, ACTIONS 103),
    (anon_sym_if, ACTIONS 105), (anon_sym_match, ACTIONS 107), (anon_sym_async, ACTIONS 109),
    (anon_sym_for, ACTIONS 111), (anon_sym_while, ACTIONS 113), (anon_sym_try, ACTIONS 115),
    (anon_sym_with, ACTIONS 117), (anon_sym_def, ACTIONS 119), (anon_sym_fn, ACTIONS 119),
    (anon_sym_LBRACK, ACTIONS 59), (anon_sym_LBRACE, ACTIONS 61), (anon_sym_global, ACTIONS 63),
    (anon_sym_nonlocal, ACTIONS 65), (anon_sym_exec, ACTIONS 67), (anon_sym_type, ACTIONS 69),
    (anon_sym_class, ACTIONS 121), (anon_sym_struct, ACTIONS 121), (anon_sym_mut, ACTIONS 73),
    (anon_sym_out, ACTIONS 73), (anon_sym_trait, ACTIONS 123), (anon_sym_AT, ACTIONS 77),
    (anon_sym_DASH, ACTIONS 79), (anon_sym_PLUS, ACTIONS 79), (anon_sym_ref, ACTIONS 81),
    (anon_sym_var, ACTIONS 81), (anon_sym_not, ACTIONS 83), (anon_sym_TILDE, ACTIONS 79),
    (anon_sym_lambda, ACTIONS 85), (anon_sym_yield, ACTIONS 87), (sym_ellipsis, ACTIONS 89),
    (anon_sym___mlir_type, ACTIONS 91), (sym_integer, ACTIONS 93), (sym_float, ACTIONS 89),
    (anon_sym_await, ACTIONS 95), (sym_true, ACTIONS 93), (sym_false, ACTIONS 93),
    (sym_none, ACTIONS 93), (sym_comment, ACTIONS 3), (sym_line_continuation, ACTIONS 3),
    (sym__dedent, ACTIONS 129), (sym_string_start, ACTIONS 97)]"

definition parse_table_255 :: "(nat \<times> nat) list" where "parse_table_255 = [
    (sym__statement, STATE 925), (sym__simple_statements, STATE 925),
    (sym_import_statement, STATE 11814), (sym_future_import_statement, STATE 11814),
    (sym_import_from_statement, STATE 11814), (sym_print_statement, STATE 11814),
    (sym_assert_statement, STATE 11814), (sym_comptime_assert_statement, STATE 11814),
    (sym_expression_statement, STATE 11814), (sym_tuple_expression, STATE 12425),
    (sym_named_expression, STATE 7969), (sym__named_expression_lhs, STATE 12752),
    (sym_return_statement, STATE 11814), (sym_delete_statement, STATE 11814),
    (sym_raise_statement, STATE 11814), (sym_pass_statement, STATE 11814),
    (sym_break_statement, STATE 11814), (sym_continue_statement, STATE 11814),
    (sym_extension_definition, STATE 925), (sym_mlir_region, STATE 925),
    (sym_comptime_statement, STATE 925), (sym_if_statement, STATE 925),
    (sym_match_statement, STATE 925), (sym_for_statement, STATE 925),
    (sym_while_statement, STATE 925), (sym_try_statement, STATE 925),
    (sym_with_statement, STATE 925), (sym_function_definition, STATE 925),
    (sym_global_statement, STATE 11814), (sym_nonlocal_statement, STATE 11814),
    (sym_exec_statement, STATE 11814), (sym_type_alias_statement, STATE 11814),
    (sym_parameterized_alias_statement, STATE 11814), (sym_class_definition, STATE 925),
    (sym_trait_definition, STATE 925), (sym_decorated_definition, STATE 925),
    (sym_decorator, STATE 3670), (sym_block, STATE 5404), (sym_pattern, STATE 8086),
    (sym_tuple_pattern, STATE 8101), (sym_list_pattern, STATE 8101),
    (sym_list_splat_pattern, STATE 6819), (sym_as_pattern, STATE 7969),
    (sym_expression, STATE 9883), (sym_primary_expression, STATE 7326),
    (sym_comptime_expression, STATE 7017), (sym_transfer_expression, STATE 7017),
    (sym_not_operator, STATE 7969), (sym_boolean_operator, STATE 7969),
    (sym_binary_operator, STATE 7017), (sym_unary_operator, STATE 7017),
    (sym_comparison_operator, STATE 7969), (sym_lambda, STATE 7969),
    (sym_assignment, STATE 12425), (sym_augmented_assignment, STATE 12425),
    (sym_pattern_list, STATE 8578), (sym_yield, STATE 12425), (sym_attribute, STATE 6836),
    (sym_subscript, STATE 6838), (sym_call, STATE 6845), (sym_mlir_type, STATE 7017),
    (sym_list, STATE 7017), (sym_set, STATE 7017), (sym_tuple, STATE 7017),
    (sym_dictionary, STATE 7017), (sym_struct_literal, STATE 7017),
    (sym_list_comprehension, STATE 7017), (sym_dictionary_comprehension, STATE 7017),
    (sym_set_comprehension, STATE 7017), (sym_generator_expression, STATE 7017),
    (sym_parenthesized_expression, STATE 7017), (sym_conditional_expression, STATE 7969),
    (sym_concatenated_string, STATE 7017), (sym_string, STATE 6751), (sym_await, STATE 7017),
    (aux_sym_module_repeat1, STATE 925), (aux_sym_decorated_definition_repeat1, STATE 3670),
    (sym_identifier, ACTIONS 9), (anon_sym_import, ACTIONS 11), (anon_sym_from, ACTIONS 13),
    (anon_sym_LPAREN, ACTIONS 15), (anon_sym_STAR, ACTIONS 17), (anon_sym_print, ACTIONS 19),
    (anon_sym_comptime, ACTIONS 99), (anon_sym_assert, ACTIONS 23),
    (anon_sym___comptime_assert, ACTIONS 25), (anon_sym_return, ACTIONS 27),
    (anon_sym_del, ACTIONS 29), (anon_sym_raise, ACTIONS 31), (anon_sym_pass, ACTIONS 33),
    (anon_sym_break, ACTIONS 35), (anon_sym_continue, ACTIONS 37),
    (anon_sym___extension, ACTIONS 101), (anon_sym___mlir_region, ACTIONS 103),
    (anon_sym_if, ACTIONS 105), (anon_sym_match, ACTIONS 107), (anon_sym_async, ACTIONS 109),
    (anon_sym_for, ACTIONS 111), (anon_sym_while, ACTIONS 113), (anon_sym_try, ACTIONS 115),
    (anon_sym_with, ACTIONS 117), (anon_sym_def, ACTIONS 119), (anon_sym_fn, ACTIONS 119),
    (anon_sym_LBRACK, ACTIONS 59), (anon_sym_LBRACE, ACTIONS 61), (anon_sym_global, ACTIONS 63),
    (anon_sym_nonlocal, ACTIONS 65), (anon_sym_exec, ACTIONS 67), (anon_sym_type, ACTIONS 69),
    (anon_sym_class, ACTIONS 121), (anon_sym_struct, ACTIONS 121), (anon_sym_mut, ACTIONS 73),
    (anon_sym_out, ACTIONS 73), (anon_sym_trait, ACTIONS 123), (anon_sym_AT, ACTIONS 77),
    (anon_sym_DASH, ACTIONS 79), (anon_sym_PLUS, ACTIONS 79), (anon_sym_ref, ACTIONS 81),
    (anon_sym_var, ACTIONS 81), (anon_sym_not, ACTIONS 83), (anon_sym_TILDE, ACTIONS 79),
    (anon_sym_lambda, ACTIONS 85), (anon_sym_yield, ACTIONS 87), (sym_ellipsis, ACTIONS 89),
    (anon_sym___mlir_type, ACTIONS 91), (sym_integer, ACTIONS 93), (sym_float, ACTIONS 89),
    (anon_sym_await, ACTIONS 95), (sym_true, ACTIONS 93), (sym_false, ACTIONS 93),
    (sym_none, ACTIONS 93), (sym_comment, ACTIONS 3), (sym_line_continuation, ACTIONS 3),
    (sym__dedent, ACTIONS 129), (sym_string_start, ACTIONS 97)]"

definition parse_table_256 :: "(nat \<times> nat) list" where "parse_table_256 = [
    (sym__statement, STATE 925), (sym__simple_statements, STATE 925),
    (sym_import_statement, STATE 11814), (sym_future_import_statement, STATE 11814),
    (sym_import_from_statement, STATE 11814), (sym_print_statement, STATE 11814),
    (sym_assert_statement, STATE 11814), (sym_comptime_assert_statement, STATE 11814),
    (sym_expression_statement, STATE 11814), (sym_tuple_expression, STATE 12425),
    (sym_named_expression, STATE 7969), (sym__named_expression_lhs, STATE 12752),
    (sym_return_statement, STATE 11814), (sym_delete_statement, STATE 11814),
    (sym_raise_statement, STATE 11814), (sym_pass_statement, STATE 11814),
    (sym_break_statement, STATE 11814), (sym_continue_statement, STATE 11814),
    (sym_extension_definition, STATE 925), (sym_mlir_region, STATE 925),
    (sym_comptime_statement, STATE 925), (sym_if_statement, STATE 925),
    (sym_match_statement, STATE 925), (sym_for_statement, STATE 925),
    (sym_while_statement, STATE 925), (sym_try_statement, STATE 925),
    (sym_with_statement, STATE 925), (sym_function_definition, STATE 925),
    (sym_global_statement, STATE 11814), (sym_nonlocal_statement, STATE 11814),
    (sym_exec_statement, STATE 11814), (sym_type_alias_statement, STATE 11814),
    (sym_parameterized_alias_statement, STATE 11814), (sym_class_definition, STATE 925),
    (sym_trait_definition, STATE 925), (sym_decorated_definition, STATE 925),
    (sym_decorator, STATE 3670), (sym_block, STATE 5410), (sym_pattern, STATE 8086),
    (sym_tuple_pattern, STATE 8101), (sym_list_pattern, STATE 8101),
    (sym_list_splat_pattern, STATE 6819), (sym_as_pattern, STATE 7969),
    (sym_expression, STATE 9883), (sym_primary_expression, STATE 7326),
    (sym_comptime_expression, STATE 7017), (sym_transfer_expression, STATE 7017),
    (sym_not_operator, STATE 7969), (sym_boolean_operator, STATE 7969),
    (sym_binary_operator, STATE 7017), (sym_unary_operator, STATE 7017),
    (sym_comparison_operator, STATE 7969), (sym_lambda, STATE 7969),
    (sym_assignment, STATE 12425), (sym_augmented_assignment, STATE 12425),
    (sym_pattern_list, STATE 8578), (sym_yield, STATE 12425), (sym_attribute, STATE 6836),
    (sym_subscript, STATE 6838), (sym_call, STATE 6845), (sym_mlir_type, STATE 7017),
    (sym_list, STATE 7017), (sym_set, STATE 7017), (sym_tuple, STATE 7017),
    (sym_dictionary, STATE 7017), (sym_struct_literal, STATE 7017),
    (sym_list_comprehension, STATE 7017), (sym_dictionary_comprehension, STATE 7017),
    (sym_set_comprehension, STATE 7017), (sym_generator_expression, STATE 7017),
    (sym_parenthesized_expression, STATE 7017), (sym_conditional_expression, STATE 7969),
    (sym_concatenated_string, STATE 7017), (sym_string, STATE 6751), (sym_await, STATE 7017),
    (aux_sym_module_repeat1, STATE 925), (aux_sym_decorated_definition_repeat1, STATE 3670),
    (sym_identifier, ACTIONS 9), (anon_sym_import, ACTIONS 11), (anon_sym_from, ACTIONS 13),
    (anon_sym_LPAREN, ACTIONS 15), (anon_sym_STAR, ACTIONS 17), (anon_sym_print, ACTIONS 19),
    (anon_sym_comptime, ACTIONS 99), (anon_sym_assert, ACTIONS 23),
    (anon_sym___comptime_assert, ACTIONS 25), (anon_sym_return, ACTIONS 27),
    (anon_sym_del, ACTIONS 29), (anon_sym_raise, ACTIONS 31), (anon_sym_pass, ACTIONS 33),
    (anon_sym_break, ACTIONS 35), (anon_sym_continue, ACTIONS 37),
    (anon_sym___extension, ACTIONS 101), (anon_sym___mlir_region, ACTIONS 103),
    (anon_sym_if, ACTIONS 105), (anon_sym_match, ACTIONS 107), (anon_sym_async, ACTIONS 109),
    (anon_sym_for, ACTIONS 111), (anon_sym_while, ACTIONS 113), (anon_sym_try, ACTIONS 115),
    (anon_sym_with, ACTIONS 117), (anon_sym_def, ACTIONS 119), (anon_sym_fn, ACTIONS 119),
    (anon_sym_LBRACK, ACTIONS 59), (anon_sym_LBRACE, ACTIONS 61), (anon_sym_global, ACTIONS 63),
    (anon_sym_nonlocal, ACTIONS 65), (anon_sym_exec, ACTIONS 67), (anon_sym_type, ACTIONS 69),
    (anon_sym_class, ACTIONS 121), (anon_sym_struct, ACTIONS 121), (anon_sym_mut, ACTIONS 73),
    (anon_sym_out, ACTIONS 73), (anon_sym_trait, ACTIONS 123), (anon_sym_AT, ACTIONS 77),
    (anon_sym_DASH, ACTIONS 79), (anon_sym_PLUS, ACTIONS 79), (anon_sym_ref, ACTIONS 81),
    (anon_sym_var, ACTIONS 81), (anon_sym_not, ACTIONS 83), (anon_sym_TILDE, ACTIONS 79),
    (anon_sym_lambda, ACTIONS 85), (anon_sym_yield, ACTIONS 87), (sym_ellipsis, ACTIONS 89),
    (anon_sym___mlir_type, ACTIONS 91), (sym_integer, ACTIONS 93), (sym_float, ACTIONS 89),
    (anon_sym_await, ACTIONS 95), (sym_true, ACTIONS 93), (sym_false, ACTIONS 93),
    (sym_none, ACTIONS 93), (sym_comment, ACTIONS 3), (sym_line_continuation, ACTIONS 3),
    (sym__dedent, ACTIONS 129), (sym_string_start, ACTIONS 97)]"

definition parse_table_257 :: "(nat \<times> nat) list" where "parse_table_257 = [
    (sym__statement, STATE 925), (sym__simple_statements, STATE 925),
    (sym_import_statement, STATE 11814), (sym_future_import_statement, STATE 11814),
    (sym_import_from_statement, STATE 11814), (sym_print_statement, STATE 11814),
    (sym_assert_statement, STATE 11814), (sym_comptime_assert_statement, STATE 11814),
    (sym_expression_statement, STATE 11814), (sym_tuple_expression, STATE 12425),
    (sym_named_expression, STATE 7969), (sym__named_expression_lhs, STATE 12752),
    (sym_return_statement, STATE 11814), (sym_delete_statement, STATE 11814),
    (sym_raise_statement, STATE 11814), (sym_pass_statement, STATE 11814),
    (sym_break_statement, STATE 11814), (sym_continue_statement, STATE 11814),
    (sym_extension_definition, STATE 925), (sym_mlir_region, STATE 925),
    (sym_comptime_statement, STATE 925), (sym_if_statement, STATE 925),
    (sym_match_statement, STATE 925), (sym_for_statement, STATE 925),
    (sym_while_statement, STATE 925), (sym_try_statement, STATE 925),
    (sym_with_statement, STATE 925), (sym_function_definition, STATE 925),
    (sym_global_statement, STATE 11814), (sym_nonlocal_statement, STATE 11814),
    (sym_exec_statement, STATE 11814), (sym_type_alias_statement, STATE 11814),
    (sym_parameterized_alias_statement, STATE 11814), (sym_class_definition, STATE 925),
    (sym_trait_definition, STATE 925), (sym_decorated_definition, STATE 925),
    (sym_decorator, STATE 3670), (sym_block, STATE 5415), (sym_pattern, STATE 8086),
    (sym_tuple_pattern, STATE 8101), (sym_list_pattern, STATE 8101),
    (sym_list_splat_pattern, STATE 6819), (sym_as_pattern, STATE 7969),
    (sym_expression, STATE 9883), (sym_primary_expression, STATE 7326),
    (sym_comptime_expression, STATE 7017), (sym_transfer_expression, STATE 7017),
    (sym_not_operator, STATE 7969), (sym_boolean_operator, STATE 7969),
    (sym_binary_operator, STATE 7017), (sym_unary_operator, STATE 7017),
    (sym_comparison_operator, STATE 7969), (sym_lambda, STATE 7969),
    (sym_assignment, STATE 12425), (sym_augmented_assignment, STATE 12425),
    (sym_pattern_list, STATE 8578), (sym_yield, STATE 12425), (sym_attribute, STATE 6836),
    (sym_subscript, STATE 6838), (sym_call, STATE 6845), (sym_mlir_type, STATE 7017),
    (sym_list, STATE 7017), (sym_set, STATE 7017), (sym_tuple, STATE 7017),
    (sym_dictionary, STATE 7017), (sym_struct_literal, STATE 7017),
    (sym_list_comprehension, STATE 7017), (sym_dictionary_comprehension, STATE 7017),
    (sym_set_comprehension, STATE 7017), (sym_generator_expression, STATE 7017),
    (sym_parenthesized_expression, STATE 7017), (sym_conditional_expression, STATE 7969),
    (sym_concatenated_string, STATE 7017), (sym_string, STATE 6751), (sym_await, STATE 7017),
    (aux_sym_module_repeat1, STATE 925), (aux_sym_decorated_definition_repeat1, STATE 3670),
    (sym_identifier, ACTIONS 9), (anon_sym_import, ACTIONS 11), (anon_sym_from, ACTIONS 13),
    (anon_sym_LPAREN, ACTIONS 15), (anon_sym_STAR, ACTIONS 17), (anon_sym_print, ACTIONS 19),
    (anon_sym_comptime, ACTIONS 99), (anon_sym_assert, ACTIONS 23),
    (anon_sym___comptime_assert, ACTIONS 25), (anon_sym_return, ACTIONS 27),
    (anon_sym_del, ACTIONS 29), (anon_sym_raise, ACTIONS 31), (anon_sym_pass, ACTIONS 33),
    (anon_sym_break, ACTIONS 35), (anon_sym_continue, ACTIONS 37),
    (anon_sym___extension, ACTIONS 101), (anon_sym___mlir_region, ACTIONS 103),
    (anon_sym_if, ACTIONS 105), (anon_sym_match, ACTIONS 107), (anon_sym_async, ACTIONS 109),
    (anon_sym_for, ACTIONS 111), (anon_sym_while, ACTIONS 113), (anon_sym_try, ACTIONS 115),
    (anon_sym_with, ACTIONS 117), (anon_sym_def, ACTIONS 119), (anon_sym_fn, ACTIONS 119),
    (anon_sym_LBRACK, ACTIONS 59), (anon_sym_LBRACE, ACTIONS 61), (anon_sym_global, ACTIONS 63),
    (anon_sym_nonlocal, ACTIONS 65), (anon_sym_exec, ACTIONS 67), (anon_sym_type, ACTIONS 69),
    (anon_sym_class, ACTIONS 121), (anon_sym_struct, ACTIONS 121), (anon_sym_mut, ACTIONS 73),
    (anon_sym_out, ACTIONS 73), (anon_sym_trait, ACTIONS 123), (anon_sym_AT, ACTIONS 77),
    (anon_sym_DASH, ACTIONS 79), (anon_sym_PLUS, ACTIONS 79), (anon_sym_ref, ACTIONS 81),
    (anon_sym_var, ACTIONS 81), (anon_sym_not, ACTIONS 83), (anon_sym_TILDE, ACTIONS 79),
    (anon_sym_lambda, ACTIONS 85), (anon_sym_yield, ACTIONS 87), (sym_ellipsis, ACTIONS 89),
    (anon_sym___mlir_type, ACTIONS 91), (sym_integer, ACTIONS 93), (sym_float, ACTIONS 89),
    (anon_sym_await, ACTIONS 95), (sym_true, ACTIONS 93), (sym_false, ACTIONS 93),
    (sym_none, ACTIONS 93), (sym_comment, ACTIONS 3), (sym_line_continuation, ACTIONS 3),
    (sym__dedent, ACTIONS 129), (sym_string_start, ACTIONS 97)]"

definition parse_table_258 :: "(nat \<times> nat) list" where "parse_table_258 = [
    (sym__statement, STATE 925), (sym__simple_statements, STATE 925),
    (sym_import_statement, STATE 11814), (sym_future_import_statement, STATE 11814),
    (sym_import_from_statement, STATE 11814), (sym_print_statement, STATE 11814),
    (sym_assert_statement, STATE 11814), (sym_comptime_assert_statement, STATE 11814),
    (sym_expression_statement, STATE 11814), (sym_tuple_expression, STATE 12425),
    (sym_named_expression, STATE 7969), (sym__named_expression_lhs, STATE 12752),
    (sym_return_statement, STATE 11814), (sym_delete_statement, STATE 11814),
    (sym_raise_statement, STATE 11814), (sym_pass_statement, STATE 11814),
    (sym_break_statement, STATE 11814), (sym_continue_statement, STATE 11814),
    (sym_extension_definition, STATE 925), (sym_mlir_region, STATE 925),
    (sym_comptime_statement, STATE 925), (sym_if_statement, STATE 925),
    (sym_match_statement, STATE 925), (sym_for_statement, STATE 925),
    (sym_while_statement, STATE 925), (sym_try_statement, STATE 925),
    (sym_with_statement, STATE 925), (sym_function_definition, STATE 925),
    (sym_global_statement, STATE 11814), (sym_nonlocal_statement, STATE 11814),
    (sym_exec_statement, STATE 11814), (sym_type_alias_statement, STATE 11814),
    (sym_parameterized_alias_statement, STATE 11814), (sym_class_definition, STATE 925),
    (sym_trait_definition, STATE 925), (sym_decorated_definition, STATE 925),
    (sym_decorator, STATE 3670), (sym_block, STATE 5416), (sym_pattern, STATE 8086),
    (sym_tuple_pattern, STATE 8101), (sym_list_pattern, STATE 8101),
    (sym_list_splat_pattern, STATE 6819), (sym_as_pattern, STATE 7969),
    (sym_expression, STATE 9883), (sym_primary_expression, STATE 7326),
    (sym_comptime_expression, STATE 7017), (sym_transfer_expression, STATE 7017),
    (sym_not_operator, STATE 7969), (sym_boolean_operator, STATE 7969),
    (sym_binary_operator, STATE 7017), (sym_unary_operator, STATE 7017),
    (sym_comparison_operator, STATE 7969), (sym_lambda, STATE 7969),
    (sym_assignment, STATE 12425), (sym_augmented_assignment, STATE 12425),
    (sym_pattern_list, STATE 8578), (sym_yield, STATE 12425), (sym_attribute, STATE 6836),
    (sym_subscript, STATE 6838), (sym_call, STATE 6845), (sym_mlir_type, STATE 7017),
    (sym_list, STATE 7017), (sym_set, STATE 7017), (sym_tuple, STATE 7017),
    (sym_dictionary, STATE 7017), (sym_struct_literal, STATE 7017),
    (sym_list_comprehension, STATE 7017), (sym_dictionary_comprehension, STATE 7017),
    (sym_set_comprehension, STATE 7017), (sym_generator_expression, STATE 7017),
    (sym_parenthesized_expression, STATE 7017), (sym_conditional_expression, STATE 7969),
    (sym_concatenated_string, STATE 7017), (sym_string, STATE 6751), (sym_await, STATE 7017),
    (aux_sym_module_repeat1, STATE 925), (aux_sym_decorated_definition_repeat1, STATE 3670),
    (sym_identifier, ACTIONS 9), (anon_sym_import, ACTIONS 11), (anon_sym_from, ACTIONS 13),
    (anon_sym_LPAREN, ACTIONS 15), (anon_sym_STAR, ACTIONS 17), (anon_sym_print, ACTIONS 19),
    (anon_sym_comptime, ACTIONS 99), (anon_sym_assert, ACTIONS 23),
    (anon_sym___comptime_assert, ACTIONS 25), (anon_sym_return, ACTIONS 27),
    (anon_sym_del, ACTIONS 29), (anon_sym_raise, ACTIONS 31), (anon_sym_pass, ACTIONS 33),
    (anon_sym_break, ACTIONS 35), (anon_sym_continue, ACTIONS 37),
    (anon_sym___extension, ACTIONS 101), (anon_sym___mlir_region, ACTIONS 103),
    (anon_sym_if, ACTIONS 105), (anon_sym_match, ACTIONS 107), (anon_sym_async, ACTIONS 109),
    (anon_sym_for, ACTIONS 111), (anon_sym_while, ACTIONS 113), (anon_sym_try, ACTIONS 115),
    (anon_sym_with, ACTIONS 117), (anon_sym_def, ACTIONS 119), (anon_sym_fn, ACTIONS 119),
    (anon_sym_LBRACK, ACTIONS 59), (anon_sym_LBRACE, ACTIONS 61), (anon_sym_global, ACTIONS 63),
    (anon_sym_nonlocal, ACTIONS 65), (anon_sym_exec, ACTIONS 67), (anon_sym_type, ACTIONS 69),
    (anon_sym_class, ACTIONS 121), (anon_sym_struct, ACTIONS 121), (anon_sym_mut, ACTIONS 73),
    (anon_sym_out, ACTIONS 73), (anon_sym_trait, ACTIONS 123), (anon_sym_AT, ACTIONS 77),
    (anon_sym_DASH, ACTIONS 79), (anon_sym_PLUS, ACTIONS 79), (anon_sym_ref, ACTIONS 81),
    (anon_sym_var, ACTIONS 81), (anon_sym_not, ACTIONS 83), (anon_sym_TILDE, ACTIONS 79),
    (anon_sym_lambda, ACTIONS 85), (anon_sym_yield, ACTIONS 87), (sym_ellipsis, ACTIONS 89),
    (anon_sym___mlir_type, ACTIONS 91), (sym_integer, ACTIONS 93), (sym_float, ACTIONS 89),
    (anon_sym_await, ACTIONS 95), (sym_true, ACTIONS 93), (sym_false, ACTIONS 93),
    (sym_none, ACTIONS 93), (sym_comment, ACTIONS 3), (sym_line_continuation, ACTIONS 3),
    (sym__dedent, ACTIONS 129), (sym_string_start, ACTIONS 97)]"

definition parse_table_259 :: "(nat \<times> nat) list" where "parse_table_259 = [
    (sym__statement, STATE 925), (sym__simple_statements, STATE 925),
    (sym_import_statement, STATE 11814), (sym_future_import_statement, STATE 11814),
    (sym_import_from_statement, STATE 11814), (sym_print_statement, STATE 11814),
    (sym_assert_statement, STATE 11814), (sym_comptime_assert_statement, STATE 11814),
    (sym_expression_statement, STATE 11814), (sym_tuple_expression, STATE 12425),
    (sym_named_expression, STATE 7969), (sym__named_expression_lhs, STATE 12752),
    (sym_return_statement, STATE 11814), (sym_delete_statement, STATE 11814),
    (sym_raise_statement, STATE 11814), (sym_pass_statement, STATE 11814),
    (sym_break_statement, STATE 11814), (sym_continue_statement, STATE 11814),
    (sym_extension_definition, STATE 925), (sym_mlir_region, STATE 925),
    (sym_comptime_statement, STATE 925), (sym_if_statement, STATE 925),
    (sym_match_statement, STATE 925), (sym_for_statement, STATE 925),
    (sym_while_statement, STATE 925), (sym_try_statement, STATE 925),
    (sym_with_statement, STATE 925), (sym_function_definition, STATE 925),
    (sym_global_statement, STATE 11814), (sym_nonlocal_statement, STATE 11814),
    (sym_exec_statement, STATE 11814), (sym_type_alias_statement, STATE 11814),
    (sym_parameterized_alias_statement, STATE 11814), (sym_class_definition, STATE 925),
    (sym_trait_definition, STATE 925), (sym_decorated_definition, STATE 925),
    (sym_decorator, STATE 3670), (sym_block, STATE 5418), (sym_pattern, STATE 8086),
    (sym_tuple_pattern, STATE 8101), (sym_list_pattern, STATE 8101),
    (sym_list_splat_pattern, STATE 6819), (sym_as_pattern, STATE 7969),
    (sym_expression, STATE 9883), (sym_primary_expression, STATE 7326),
    (sym_comptime_expression, STATE 7017), (sym_transfer_expression, STATE 7017),
    (sym_not_operator, STATE 7969), (sym_boolean_operator, STATE 7969),
    (sym_binary_operator, STATE 7017), (sym_unary_operator, STATE 7017),
    (sym_comparison_operator, STATE 7969), (sym_lambda, STATE 7969),
    (sym_assignment, STATE 12425), (sym_augmented_assignment, STATE 12425),
    (sym_pattern_list, STATE 8578), (sym_yield, STATE 12425), (sym_attribute, STATE 6836),
    (sym_subscript, STATE 6838), (sym_call, STATE 6845), (sym_mlir_type, STATE 7017),
    (sym_list, STATE 7017), (sym_set, STATE 7017), (sym_tuple, STATE 7017),
    (sym_dictionary, STATE 7017), (sym_struct_literal, STATE 7017),
    (sym_list_comprehension, STATE 7017), (sym_dictionary_comprehension, STATE 7017),
    (sym_set_comprehension, STATE 7017), (sym_generator_expression, STATE 7017),
    (sym_parenthesized_expression, STATE 7017), (sym_conditional_expression, STATE 7969),
    (sym_concatenated_string, STATE 7017), (sym_string, STATE 6751), (sym_await, STATE 7017),
    (aux_sym_module_repeat1, STATE 925), (aux_sym_decorated_definition_repeat1, STATE 3670),
    (sym_identifier, ACTIONS 9), (anon_sym_import, ACTIONS 11), (anon_sym_from, ACTIONS 13),
    (anon_sym_LPAREN, ACTIONS 15), (anon_sym_STAR, ACTIONS 17), (anon_sym_print, ACTIONS 19),
    (anon_sym_comptime, ACTIONS 99), (anon_sym_assert, ACTIONS 23),
    (anon_sym___comptime_assert, ACTIONS 25), (anon_sym_return, ACTIONS 27),
    (anon_sym_del, ACTIONS 29), (anon_sym_raise, ACTIONS 31), (anon_sym_pass, ACTIONS 33),
    (anon_sym_break, ACTIONS 35), (anon_sym_continue, ACTIONS 37),
    (anon_sym___extension, ACTIONS 101), (anon_sym___mlir_region, ACTIONS 103),
    (anon_sym_if, ACTIONS 105), (anon_sym_match, ACTIONS 107), (anon_sym_async, ACTIONS 109),
    (anon_sym_for, ACTIONS 111), (anon_sym_while, ACTIONS 113), (anon_sym_try, ACTIONS 115),
    (anon_sym_with, ACTIONS 117), (anon_sym_def, ACTIONS 119), (anon_sym_fn, ACTIONS 119),
    (anon_sym_LBRACK, ACTIONS 59), (anon_sym_LBRACE, ACTIONS 61), (anon_sym_global, ACTIONS 63),
    (anon_sym_nonlocal, ACTIONS 65), (anon_sym_exec, ACTIONS 67), (anon_sym_type, ACTIONS 69),
    (anon_sym_class, ACTIONS 121), (anon_sym_struct, ACTIONS 121), (anon_sym_mut, ACTIONS 73),
    (anon_sym_out, ACTIONS 73), (anon_sym_trait, ACTIONS 123), (anon_sym_AT, ACTIONS 77),
    (anon_sym_DASH, ACTIONS 79), (anon_sym_PLUS, ACTIONS 79), (anon_sym_ref, ACTIONS 81),
    (anon_sym_var, ACTIONS 81), (anon_sym_not, ACTIONS 83), (anon_sym_TILDE, ACTIONS 79),
    (anon_sym_lambda, ACTIONS 85), (anon_sym_yield, ACTIONS 87), (sym_ellipsis, ACTIONS 89),
    (anon_sym___mlir_type, ACTIONS 91), (sym_integer, ACTIONS 93), (sym_float, ACTIONS 89),
    (anon_sym_await, ACTIONS 95), (sym_true, ACTIONS 93), (sym_false, ACTIONS 93),
    (sym_none, ACTIONS 93), (sym_comment, ACTIONS 3), (sym_line_continuation, ACTIONS 3),
    (sym__dedent, ACTIONS 129), (sym_string_start, ACTIONS 97)]"

definition parse_table_260 :: "(nat \<times> nat) list" where "parse_table_260 = [
    (sym__statement, STATE 925), (sym__simple_statements, STATE 925),
    (sym_import_statement, STATE 11814), (sym_future_import_statement, STATE 11814),
    (sym_import_from_statement, STATE 11814), (sym_print_statement, STATE 11814),
    (sym_assert_statement, STATE 11814), (sym_comptime_assert_statement, STATE 11814),
    (sym_expression_statement, STATE 11814), (sym_tuple_expression, STATE 12425),
    (sym_named_expression, STATE 7969), (sym__named_expression_lhs, STATE 12752),
    (sym_return_statement, STATE 11814), (sym_delete_statement, STATE 11814),
    (sym_raise_statement, STATE 11814), (sym_pass_statement, STATE 11814),
    (sym_break_statement, STATE 11814), (sym_continue_statement, STATE 11814),
    (sym_extension_definition, STATE 925), (sym_mlir_region, STATE 925),
    (sym_comptime_statement, STATE 925), (sym_if_statement, STATE 925),
    (sym_match_statement, STATE 925), (sym_for_statement, STATE 925),
    (sym_while_statement, STATE 925), (sym_try_statement, STATE 925),
    (sym_with_statement, STATE 925), (sym_function_definition, STATE 925),
    (sym_global_statement, STATE 11814), (sym_nonlocal_statement, STATE 11814),
    (sym_exec_statement, STATE 11814), (sym_type_alias_statement, STATE 11814),
    (sym_parameterized_alias_statement, STATE 11814), (sym_class_definition, STATE 925),
    (sym_trait_definition, STATE 925), (sym_decorated_definition, STATE 925),
    (sym_decorator, STATE 3670), (sym_block, STATE 5425), (sym_pattern, STATE 8086),
    (sym_tuple_pattern, STATE 8101), (sym_list_pattern, STATE 8101),
    (sym_list_splat_pattern, STATE 6819), (sym_as_pattern, STATE 7969),
    (sym_expression, STATE 9883), (sym_primary_expression, STATE 7326),
    (sym_comptime_expression, STATE 7017), (sym_transfer_expression, STATE 7017),
    (sym_not_operator, STATE 7969), (sym_boolean_operator, STATE 7969),
    (sym_binary_operator, STATE 7017), (sym_unary_operator, STATE 7017),
    (sym_comparison_operator, STATE 7969), (sym_lambda, STATE 7969),
    (sym_assignment, STATE 12425), (sym_augmented_assignment, STATE 12425),
    (sym_pattern_list, STATE 8578), (sym_yield, STATE 12425), (sym_attribute, STATE 6836),
    (sym_subscript, STATE 6838), (sym_call, STATE 6845), (sym_mlir_type, STATE 7017),
    (sym_list, STATE 7017), (sym_set, STATE 7017), (sym_tuple, STATE 7017),
    (sym_dictionary, STATE 7017), (sym_struct_literal, STATE 7017),
    (sym_list_comprehension, STATE 7017), (sym_dictionary_comprehension, STATE 7017),
    (sym_set_comprehension, STATE 7017), (sym_generator_expression, STATE 7017),
    (sym_parenthesized_expression, STATE 7017), (sym_conditional_expression, STATE 7969),
    (sym_concatenated_string, STATE 7017), (sym_string, STATE 6751), (sym_await, STATE 7017),
    (aux_sym_module_repeat1, STATE 925), (aux_sym_decorated_definition_repeat1, STATE 3670),
    (sym_identifier, ACTIONS 9), (anon_sym_import, ACTIONS 11), (anon_sym_from, ACTIONS 13),
    (anon_sym_LPAREN, ACTIONS 15), (anon_sym_STAR, ACTIONS 17), (anon_sym_print, ACTIONS 19),
    (anon_sym_comptime, ACTIONS 99), (anon_sym_assert, ACTIONS 23),
    (anon_sym___comptime_assert, ACTIONS 25), (anon_sym_return, ACTIONS 27),
    (anon_sym_del, ACTIONS 29), (anon_sym_raise, ACTIONS 31), (anon_sym_pass, ACTIONS 33),
    (anon_sym_break, ACTIONS 35), (anon_sym_continue, ACTIONS 37),
    (anon_sym___extension, ACTIONS 101), (anon_sym___mlir_region, ACTIONS 103),
    (anon_sym_if, ACTIONS 105), (anon_sym_match, ACTIONS 107), (anon_sym_async, ACTIONS 109),
    (anon_sym_for, ACTIONS 111), (anon_sym_while, ACTIONS 113), (anon_sym_try, ACTIONS 115),
    (anon_sym_with, ACTIONS 117), (anon_sym_def, ACTIONS 119), (anon_sym_fn, ACTIONS 119),
    (anon_sym_LBRACK, ACTIONS 59), (anon_sym_LBRACE, ACTIONS 61), (anon_sym_global, ACTIONS 63),
    (anon_sym_nonlocal, ACTIONS 65), (anon_sym_exec, ACTIONS 67), (anon_sym_type, ACTIONS 69),
    (anon_sym_class, ACTIONS 121), (anon_sym_struct, ACTIONS 121), (anon_sym_mut, ACTIONS 73),
    (anon_sym_out, ACTIONS 73), (anon_sym_trait, ACTIONS 123), (anon_sym_AT, ACTIONS 77),
    (anon_sym_DASH, ACTIONS 79), (anon_sym_PLUS, ACTIONS 79), (anon_sym_ref, ACTIONS 81),
    (anon_sym_var, ACTIONS 81), (anon_sym_not, ACTIONS 83), (anon_sym_TILDE, ACTIONS 79),
    (anon_sym_lambda, ACTIONS 85), (anon_sym_yield, ACTIONS 87), (sym_ellipsis, ACTIONS 89),
    (anon_sym___mlir_type, ACTIONS 91), (sym_integer, ACTIONS 93), (sym_float, ACTIONS 89),
    (anon_sym_await, ACTIONS 95), (sym_true, ACTIONS 93), (sym_false, ACTIONS 93),
    (sym_none, ACTIONS 93), (sym_comment, ACTIONS 3), (sym_line_continuation, ACTIONS 3),
    (sym__dedent, ACTIONS 129), (sym_string_start, ACTIONS 97)]"

definition parse_table_261 :: "(nat \<times> nat) list" where "parse_table_261 = [
    (sym__statement, STATE 925), (sym__simple_statements, STATE 925),
    (sym_import_statement, STATE 11814), (sym_future_import_statement, STATE 11814),
    (sym_import_from_statement, STATE 11814), (sym_print_statement, STATE 11814),
    (sym_assert_statement, STATE 11814), (sym_comptime_assert_statement, STATE 11814),
    (sym_expression_statement, STATE 11814), (sym_tuple_expression, STATE 12425),
    (sym_named_expression, STATE 7969), (sym__named_expression_lhs, STATE 12752),
    (sym_return_statement, STATE 11814), (sym_delete_statement, STATE 11814),
    (sym_raise_statement, STATE 11814), (sym_pass_statement, STATE 11814),
    (sym_break_statement, STATE 11814), (sym_continue_statement, STATE 11814),
    (sym_extension_definition, STATE 925), (sym_mlir_region, STATE 925),
    (sym_comptime_statement, STATE 925), (sym_if_statement, STATE 925),
    (sym_match_statement, STATE 925), (sym_for_statement, STATE 925),
    (sym_while_statement, STATE 925), (sym_try_statement, STATE 925),
    (sym_with_statement, STATE 925), (sym_function_definition, STATE 925),
    (sym_global_statement, STATE 11814), (sym_nonlocal_statement, STATE 11814),
    (sym_exec_statement, STATE 11814), (sym_type_alias_statement, STATE 11814),
    (sym_parameterized_alias_statement, STATE 11814), (sym_class_definition, STATE 925),
    (sym_trait_definition, STATE 925), (sym_decorated_definition, STATE 925),
    (sym_decorator, STATE 3670), (sym_block, STATE 5434), (sym_pattern, STATE 8086),
    (sym_tuple_pattern, STATE 8101), (sym_list_pattern, STATE 8101),
    (sym_list_splat_pattern, STATE 6819), (sym_as_pattern, STATE 7969),
    (sym_expression, STATE 9883), (sym_primary_expression, STATE 7326),
    (sym_comptime_expression, STATE 7017), (sym_transfer_expression, STATE 7017),
    (sym_not_operator, STATE 7969), (sym_boolean_operator, STATE 7969),
    (sym_binary_operator, STATE 7017), (sym_unary_operator, STATE 7017),
    (sym_comparison_operator, STATE 7969), (sym_lambda, STATE 7969),
    (sym_assignment, STATE 12425), (sym_augmented_assignment, STATE 12425),
    (sym_pattern_list, STATE 8578), (sym_yield, STATE 12425), (sym_attribute, STATE 6836),
    (sym_subscript, STATE 6838), (sym_call, STATE 6845), (sym_mlir_type, STATE 7017),
    (sym_list, STATE 7017), (sym_set, STATE 7017), (sym_tuple, STATE 7017),
    (sym_dictionary, STATE 7017), (sym_struct_literal, STATE 7017),
    (sym_list_comprehension, STATE 7017), (sym_dictionary_comprehension, STATE 7017),
    (sym_set_comprehension, STATE 7017), (sym_generator_expression, STATE 7017),
    (sym_parenthesized_expression, STATE 7017), (sym_conditional_expression, STATE 7969),
    (sym_concatenated_string, STATE 7017), (sym_string, STATE 6751), (sym_await, STATE 7017),
    (aux_sym_module_repeat1, STATE 925), (aux_sym_decorated_definition_repeat1, STATE 3670),
    (sym_identifier, ACTIONS 9), (anon_sym_import, ACTIONS 11), (anon_sym_from, ACTIONS 13),
    (anon_sym_LPAREN, ACTIONS 15), (anon_sym_STAR, ACTIONS 17), (anon_sym_print, ACTIONS 19),
    (anon_sym_comptime, ACTIONS 99), (anon_sym_assert, ACTIONS 23),
    (anon_sym___comptime_assert, ACTIONS 25), (anon_sym_return, ACTIONS 27),
    (anon_sym_del, ACTIONS 29), (anon_sym_raise, ACTIONS 31), (anon_sym_pass, ACTIONS 33),
    (anon_sym_break, ACTIONS 35), (anon_sym_continue, ACTIONS 37),
    (anon_sym___extension, ACTIONS 101), (anon_sym___mlir_region, ACTIONS 103),
    (anon_sym_if, ACTIONS 105), (anon_sym_match, ACTIONS 107), (anon_sym_async, ACTIONS 109),
    (anon_sym_for, ACTIONS 111), (anon_sym_while, ACTIONS 113), (anon_sym_try, ACTIONS 115),
    (anon_sym_with, ACTIONS 117), (anon_sym_def, ACTIONS 119), (anon_sym_fn, ACTIONS 119),
    (anon_sym_LBRACK, ACTIONS 59), (anon_sym_LBRACE, ACTIONS 61), (anon_sym_global, ACTIONS 63),
    (anon_sym_nonlocal, ACTIONS 65), (anon_sym_exec, ACTIONS 67), (anon_sym_type, ACTIONS 69),
    (anon_sym_class, ACTIONS 121), (anon_sym_struct, ACTIONS 121), (anon_sym_mut, ACTIONS 73),
    (anon_sym_out, ACTIONS 73), (anon_sym_trait, ACTIONS 123), (anon_sym_AT, ACTIONS 77),
    (anon_sym_DASH, ACTIONS 79), (anon_sym_PLUS, ACTIONS 79), (anon_sym_ref, ACTIONS 81),
    (anon_sym_var, ACTIONS 81), (anon_sym_not, ACTIONS 83), (anon_sym_TILDE, ACTIONS 79),
    (anon_sym_lambda, ACTIONS 85), (anon_sym_yield, ACTIONS 87), (sym_ellipsis, ACTIONS 89),
    (anon_sym___mlir_type, ACTIONS 91), (sym_integer, ACTIONS 93), (sym_float, ACTIONS 89),
    (anon_sym_await, ACTIONS 95), (sym_true, ACTIONS 93), (sym_false, ACTIONS 93),
    (sym_none, ACTIONS 93), (sym_comment, ACTIONS 3), (sym_line_continuation, ACTIONS 3),
    (sym__dedent, ACTIONS 129), (sym_string_start, ACTIONS 97)]"

definition parse_table_262 :: "(nat \<times> nat) list" where "parse_table_262 = [
    (sym__statement, STATE 925), (sym__simple_statements, STATE 925),
    (sym_import_statement, STATE 11814), (sym_future_import_statement, STATE 11814),
    (sym_import_from_statement, STATE 11814), (sym_print_statement, STATE 11814),
    (sym_assert_statement, STATE 11814), (sym_comptime_assert_statement, STATE 11814),
    (sym_expression_statement, STATE 11814), (sym_tuple_expression, STATE 12425),
    (sym_named_expression, STATE 7969), (sym__named_expression_lhs, STATE 12752),
    (sym_return_statement, STATE 11814), (sym_delete_statement, STATE 11814),
    (sym_raise_statement, STATE 11814), (sym_pass_statement, STATE 11814),
    (sym_break_statement, STATE 11814), (sym_continue_statement, STATE 11814),
    (sym_extension_definition, STATE 925), (sym_mlir_region, STATE 925),
    (sym_comptime_statement, STATE 925), (sym_if_statement, STATE 925),
    (sym_match_statement, STATE 925), (sym_for_statement, STATE 925),
    (sym_while_statement, STATE 925), (sym_try_statement, STATE 925),
    (sym_with_statement, STATE 925), (sym_function_definition, STATE 925),
    (sym_global_statement, STATE 11814), (sym_nonlocal_statement, STATE 11814),
    (sym_exec_statement, STATE 11814), (sym_type_alias_statement, STATE 11814),
    (sym_parameterized_alias_statement, STATE 11814), (sym_class_definition, STATE 925),
    (sym_trait_definition, STATE 925), (sym_decorated_definition, STATE 925),
    (sym_decorator, STATE 3670), (sym_block, STATE 5436), (sym_pattern, STATE 8086),
    (sym_tuple_pattern, STATE 8101), (sym_list_pattern, STATE 8101),
    (sym_list_splat_pattern, STATE 6819), (sym_as_pattern, STATE 7969),
    (sym_expression, STATE 9883), (sym_primary_expression, STATE 7326),
    (sym_comptime_expression, STATE 7017), (sym_transfer_expression, STATE 7017),
    (sym_not_operator, STATE 7969), (sym_boolean_operator, STATE 7969),
    (sym_binary_operator, STATE 7017), (sym_unary_operator, STATE 7017),
    (sym_comparison_operator, STATE 7969), (sym_lambda, STATE 7969),
    (sym_assignment, STATE 12425), (sym_augmented_assignment, STATE 12425),
    (sym_pattern_list, STATE 8578), (sym_yield, STATE 12425), (sym_attribute, STATE 6836),
    (sym_subscript, STATE 6838), (sym_call, STATE 6845), (sym_mlir_type, STATE 7017),
    (sym_list, STATE 7017), (sym_set, STATE 7017), (sym_tuple, STATE 7017),
    (sym_dictionary, STATE 7017), (sym_struct_literal, STATE 7017),
    (sym_list_comprehension, STATE 7017), (sym_dictionary_comprehension, STATE 7017),
    (sym_set_comprehension, STATE 7017), (sym_generator_expression, STATE 7017),
    (sym_parenthesized_expression, STATE 7017), (sym_conditional_expression, STATE 7969),
    (sym_concatenated_string, STATE 7017), (sym_string, STATE 6751), (sym_await, STATE 7017),
    (aux_sym_module_repeat1, STATE 925), (aux_sym_decorated_definition_repeat1, STATE 3670),
    (sym_identifier, ACTIONS 9), (anon_sym_import, ACTIONS 11), (anon_sym_from, ACTIONS 13),
    (anon_sym_LPAREN, ACTIONS 15), (anon_sym_STAR, ACTIONS 17), (anon_sym_print, ACTIONS 19),
    (anon_sym_comptime, ACTIONS 99), (anon_sym_assert, ACTIONS 23),
    (anon_sym___comptime_assert, ACTIONS 25), (anon_sym_return, ACTIONS 27),
    (anon_sym_del, ACTIONS 29), (anon_sym_raise, ACTIONS 31), (anon_sym_pass, ACTIONS 33),
    (anon_sym_break, ACTIONS 35), (anon_sym_continue, ACTIONS 37),
    (anon_sym___extension, ACTIONS 101), (anon_sym___mlir_region, ACTIONS 103),
    (anon_sym_if, ACTIONS 105), (anon_sym_match, ACTIONS 107), (anon_sym_async, ACTIONS 109),
    (anon_sym_for, ACTIONS 111), (anon_sym_while, ACTIONS 113), (anon_sym_try, ACTIONS 115),
    (anon_sym_with, ACTIONS 117), (anon_sym_def, ACTIONS 119), (anon_sym_fn, ACTIONS 119),
    (anon_sym_LBRACK, ACTIONS 59), (anon_sym_LBRACE, ACTIONS 61), (anon_sym_global, ACTIONS 63),
    (anon_sym_nonlocal, ACTIONS 65), (anon_sym_exec, ACTIONS 67), (anon_sym_type, ACTIONS 69),
    (anon_sym_class, ACTIONS 121), (anon_sym_struct, ACTIONS 121), (anon_sym_mut, ACTIONS 73),
    (anon_sym_out, ACTIONS 73), (anon_sym_trait, ACTIONS 123), (anon_sym_AT, ACTIONS 77),
    (anon_sym_DASH, ACTIONS 79), (anon_sym_PLUS, ACTIONS 79), (anon_sym_ref, ACTIONS 81),
    (anon_sym_var, ACTIONS 81), (anon_sym_not, ACTIONS 83), (anon_sym_TILDE, ACTIONS 79),
    (anon_sym_lambda, ACTIONS 85), (anon_sym_yield, ACTIONS 87), (sym_ellipsis, ACTIONS 89),
    (anon_sym___mlir_type, ACTIONS 91), (sym_integer, ACTIONS 93), (sym_float, ACTIONS 89),
    (anon_sym_await, ACTIONS 95), (sym_true, ACTIONS 93), (sym_false, ACTIONS 93),
    (sym_none, ACTIONS 93), (sym_comment, ACTIONS 3), (sym_line_continuation, ACTIONS 3),
    (sym__dedent, ACTIONS 129), (sym_string_start, ACTIONS 97)]"

definition parse_table_263 :: "(nat \<times> nat) list" where "parse_table_263 = [
    (sym__statement, STATE 925), (sym__simple_statements, STATE 925),
    (sym_import_statement, STATE 11814), (sym_future_import_statement, STATE 11814),
    (sym_import_from_statement, STATE 11814), (sym_print_statement, STATE 11814),
    (sym_assert_statement, STATE 11814), (sym_comptime_assert_statement, STATE 11814),
    (sym_expression_statement, STATE 11814), (sym_tuple_expression, STATE 12425),
    (sym_named_expression, STATE 7969), (sym__named_expression_lhs, STATE 12752),
    (sym_return_statement, STATE 11814), (sym_delete_statement, STATE 11814),
    (sym_raise_statement, STATE 11814), (sym_pass_statement, STATE 11814),
    (sym_break_statement, STATE 11814), (sym_continue_statement, STATE 11814),
    (sym_extension_definition, STATE 925), (sym_mlir_region, STATE 925),
    (sym_comptime_statement, STATE 925), (sym_if_statement, STATE 925),
    (sym_match_statement, STATE 925), (sym_for_statement, STATE 925),
    (sym_while_statement, STATE 925), (sym_try_statement, STATE 925),
    (sym_with_statement, STATE 925), (sym_function_definition, STATE 925),
    (sym_global_statement, STATE 11814), (sym_nonlocal_statement, STATE 11814),
    (sym_exec_statement, STATE 11814), (sym_type_alias_statement, STATE 11814),
    (sym_parameterized_alias_statement, STATE 11814), (sym_class_definition, STATE 925),
    (sym_trait_definition, STATE 925), (sym_decorated_definition, STATE 925),
    (sym_decorator, STATE 3670), (sym_block, STATE 5442), (sym_pattern, STATE 8086),
    (sym_tuple_pattern, STATE 8101), (sym_list_pattern, STATE 8101),
    (sym_list_splat_pattern, STATE 6819), (sym_as_pattern, STATE 7969),
    (sym_expression, STATE 9883), (sym_primary_expression, STATE 7326),
    (sym_comptime_expression, STATE 7017), (sym_transfer_expression, STATE 7017),
    (sym_not_operator, STATE 7969), (sym_boolean_operator, STATE 7969),
    (sym_binary_operator, STATE 7017), (sym_unary_operator, STATE 7017),
    (sym_comparison_operator, STATE 7969), (sym_lambda, STATE 7969),
    (sym_assignment, STATE 12425), (sym_augmented_assignment, STATE 12425),
    (sym_pattern_list, STATE 8578), (sym_yield, STATE 12425), (sym_attribute, STATE 6836),
    (sym_subscript, STATE 6838), (sym_call, STATE 6845), (sym_mlir_type, STATE 7017),
    (sym_list, STATE 7017), (sym_set, STATE 7017), (sym_tuple, STATE 7017),
    (sym_dictionary, STATE 7017), (sym_struct_literal, STATE 7017),
    (sym_list_comprehension, STATE 7017), (sym_dictionary_comprehension, STATE 7017),
    (sym_set_comprehension, STATE 7017), (sym_generator_expression, STATE 7017),
    (sym_parenthesized_expression, STATE 7017), (sym_conditional_expression, STATE 7969),
    (sym_concatenated_string, STATE 7017), (sym_string, STATE 6751), (sym_await, STATE 7017),
    (aux_sym_module_repeat1, STATE 925), (aux_sym_decorated_definition_repeat1, STATE 3670),
    (sym_identifier, ACTIONS 9), (anon_sym_import, ACTIONS 11), (anon_sym_from, ACTIONS 13),
    (anon_sym_LPAREN, ACTIONS 15), (anon_sym_STAR, ACTIONS 17), (anon_sym_print, ACTIONS 19),
    (anon_sym_comptime, ACTIONS 99), (anon_sym_assert, ACTIONS 23),
    (anon_sym___comptime_assert, ACTIONS 25), (anon_sym_return, ACTIONS 27),
    (anon_sym_del, ACTIONS 29), (anon_sym_raise, ACTIONS 31), (anon_sym_pass, ACTIONS 33),
    (anon_sym_break, ACTIONS 35), (anon_sym_continue, ACTIONS 37),
    (anon_sym___extension, ACTIONS 101), (anon_sym___mlir_region, ACTIONS 103),
    (anon_sym_if, ACTIONS 105), (anon_sym_match, ACTIONS 107), (anon_sym_async, ACTIONS 109),
    (anon_sym_for, ACTIONS 111), (anon_sym_while, ACTIONS 113), (anon_sym_try, ACTIONS 115),
    (anon_sym_with, ACTIONS 117), (anon_sym_def, ACTIONS 119), (anon_sym_fn, ACTIONS 119),
    (anon_sym_LBRACK, ACTIONS 59), (anon_sym_LBRACE, ACTIONS 61), (anon_sym_global, ACTIONS 63),
    (anon_sym_nonlocal, ACTIONS 65), (anon_sym_exec, ACTIONS 67), (anon_sym_type, ACTIONS 69),
    (anon_sym_class, ACTIONS 121), (anon_sym_struct, ACTIONS 121), (anon_sym_mut, ACTIONS 73),
    (anon_sym_out, ACTIONS 73), (anon_sym_trait, ACTIONS 123), (anon_sym_AT, ACTIONS 77),
    (anon_sym_DASH, ACTIONS 79), (anon_sym_PLUS, ACTIONS 79), (anon_sym_ref, ACTIONS 81),
    (anon_sym_var, ACTIONS 81), (anon_sym_not, ACTIONS 83), (anon_sym_TILDE, ACTIONS 79),
    (anon_sym_lambda, ACTIONS 85), (anon_sym_yield, ACTIONS 87), (sym_ellipsis, ACTIONS 89),
    (anon_sym___mlir_type, ACTIONS 91), (sym_integer, ACTIONS 93), (sym_float, ACTIONS 89),
    (anon_sym_await, ACTIONS 95), (sym_true, ACTIONS 93), (sym_false, ACTIONS 93),
    (sym_none, ACTIONS 93), (sym_comment, ACTIONS 3), (sym_line_continuation, ACTIONS 3),
    (sym__dedent, ACTIONS 129), (sym_string_start, ACTIONS 97)]"

definition parse_table_264 :: "(nat \<times> nat) list" where "parse_table_264 = [
    (sym__statement, STATE 925), (sym__simple_statements, STATE 925),
    (sym_import_statement, STATE 11814), (sym_future_import_statement, STATE 11814),
    (sym_import_from_statement, STATE 11814), (sym_print_statement, STATE 11814),
    (sym_assert_statement, STATE 11814), (sym_comptime_assert_statement, STATE 11814),
    (sym_expression_statement, STATE 11814), (sym_tuple_expression, STATE 12425),
    (sym_named_expression, STATE 7969), (sym__named_expression_lhs, STATE 12752),
    (sym_return_statement, STATE 11814), (sym_delete_statement, STATE 11814),
    (sym_raise_statement, STATE 11814), (sym_pass_statement, STATE 11814),
    (sym_break_statement, STATE 11814), (sym_continue_statement, STATE 11814),
    (sym_extension_definition, STATE 925), (sym_mlir_region, STATE 925),
    (sym_comptime_statement, STATE 925), (sym_if_statement, STATE 925),
    (sym_match_statement, STATE 925), (sym_for_statement, STATE 925),
    (sym_while_statement, STATE 925), (sym_try_statement, STATE 925),
    (sym_with_statement, STATE 925), (sym_function_definition, STATE 925),
    (sym_global_statement, STATE 11814), (sym_nonlocal_statement, STATE 11814),
    (sym_exec_statement, STATE 11814), (sym_type_alias_statement, STATE 11814),
    (sym_parameterized_alias_statement, STATE 11814), (sym_class_definition, STATE 925),
    (sym_trait_definition, STATE 925), (sym_decorated_definition, STATE 925),
    (sym_decorator, STATE 3670), (sym_block, STATE 5447), (sym_pattern, STATE 8086),
    (sym_tuple_pattern, STATE 8101), (sym_list_pattern, STATE 8101),
    (sym_list_splat_pattern, STATE 6819), (sym_as_pattern, STATE 7969),
    (sym_expression, STATE 9883), (sym_primary_expression, STATE 7326),
    (sym_comptime_expression, STATE 7017), (sym_transfer_expression, STATE 7017),
    (sym_not_operator, STATE 7969), (sym_boolean_operator, STATE 7969),
    (sym_binary_operator, STATE 7017), (sym_unary_operator, STATE 7017),
    (sym_comparison_operator, STATE 7969), (sym_lambda, STATE 7969),
    (sym_assignment, STATE 12425), (sym_augmented_assignment, STATE 12425),
    (sym_pattern_list, STATE 8578), (sym_yield, STATE 12425), (sym_attribute, STATE 6836),
    (sym_subscript, STATE 6838), (sym_call, STATE 6845), (sym_mlir_type, STATE 7017),
    (sym_list, STATE 7017), (sym_set, STATE 7017), (sym_tuple, STATE 7017),
    (sym_dictionary, STATE 7017), (sym_struct_literal, STATE 7017),
    (sym_list_comprehension, STATE 7017), (sym_dictionary_comprehension, STATE 7017),
    (sym_set_comprehension, STATE 7017), (sym_generator_expression, STATE 7017),
    (sym_parenthesized_expression, STATE 7017), (sym_conditional_expression, STATE 7969),
    (sym_concatenated_string, STATE 7017), (sym_string, STATE 6751), (sym_await, STATE 7017),
    (aux_sym_module_repeat1, STATE 925), (aux_sym_decorated_definition_repeat1, STATE 3670),
    (sym_identifier, ACTIONS 9), (anon_sym_import, ACTIONS 11), (anon_sym_from, ACTIONS 13),
    (anon_sym_LPAREN, ACTIONS 15), (anon_sym_STAR, ACTIONS 17), (anon_sym_print, ACTIONS 19),
    (anon_sym_comptime, ACTIONS 99), (anon_sym_assert, ACTIONS 23),
    (anon_sym___comptime_assert, ACTIONS 25), (anon_sym_return, ACTIONS 27),
    (anon_sym_del, ACTIONS 29), (anon_sym_raise, ACTIONS 31), (anon_sym_pass, ACTIONS 33),
    (anon_sym_break, ACTIONS 35), (anon_sym_continue, ACTIONS 37),
    (anon_sym___extension, ACTIONS 101), (anon_sym___mlir_region, ACTIONS 103),
    (anon_sym_if, ACTIONS 105), (anon_sym_match, ACTIONS 107), (anon_sym_async, ACTIONS 109),
    (anon_sym_for, ACTIONS 111), (anon_sym_while, ACTIONS 113), (anon_sym_try, ACTIONS 115),
    (anon_sym_with, ACTIONS 117), (anon_sym_def, ACTIONS 119), (anon_sym_fn, ACTIONS 119),
    (anon_sym_LBRACK, ACTIONS 59), (anon_sym_LBRACE, ACTIONS 61), (anon_sym_global, ACTIONS 63),
    (anon_sym_nonlocal, ACTIONS 65), (anon_sym_exec, ACTIONS 67), (anon_sym_type, ACTIONS 69),
    (anon_sym_class, ACTIONS 121), (anon_sym_struct, ACTIONS 121), (anon_sym_mut, ACTIONS 73),
    (anon_sym_out, ACTIONS 73), (anon_sym_trait, ACTIONS 123), (anon_sym_AT, ACTIONS 77),
    (anon_sym_DASH, ACTIONS 79), (anon_sym_PLUS, ACTIONS 79), (anon_sym_ref, ACTIONS 81),
    (anon_sym_var, ACTIONS 81), (anon_sym_not, ACTIONS 83), (anon_sym_TILDE, ACTIONS 79),
    (anon_sym_lambda, ACTIONS 85), (anon_sym_yield, ACTIONS 87), (sym_ellipsis, ACTIONS 89),
    (anon_sym___mlir_type, ACTIONS 91), (sym_integer, ACTIONS 93), (sym_float, ACTIONS 89),
    (anon_sym_await, ACTIONS 95), (sym_true, ACTIONS 93), (sym_false, ACTIONS 93),
    (sym_none, ACTIONS 93), (sym_comment, ACTIONS 3), (sym_line_continuation, ACTIONS 3),
    (sym__dedent, ACTIONS 129), (sym_string_start, ACTIONS 97)]"

definition parse_table_265 :: "(nat \<times> nat) list" where "parse_table_265 = [
    (sym__statement, STATE 925), (sym__simple_statements, STATE 925),
    (sym_import_statement, STATE 11814), (sym_future_import_statement, STATE 11814),
    (sym_import_from_statement, STATE 11814), (sym_print_statement, STATE 11814),
    (sym_assert_statement, STATE 11814), (sym_comptime_assert_statement, STATE 11814),
    (sym_expression_statement, STATE 11814), (sym_tuple_expression, STATE 12425),
    (sym_named_expression, STATE 7969), (sym__named_expression_lhs, STATE 12752),
    (sym_return_statement, STATE 11814), (sym_delete_statement, STATE 11814),
    (sym_raise_statement, STATE 11814), (sym_pass_statement, STATE 11814),
    (sym_break_statement, STATE 11814), (sym_continue_statement, STATE 11814),
    (sym_extension_definition, STATE 925), (sym_mlir_region, STATE 925),
    (sym_comptime_statement, STATE 925), (sym_if_statement, STATE 925),
    (sym_match_statement, STATE 925), (sym_for_statement, STATE 925),
    (sym_while_statement, STATE 925), (sym_try_statement, STATE 925),
    (sym_with_statement, STATE 925), (sym_function_definition, STATE 925),
    (sym_global_statement, STATE 11814), (sym_nonlocal_statement, STATE 11814),
    (sym_exec_statement, STATE 11814), (sym_type_alias_statement, STATE 11814),
    (sym_parameterized_alias_statement, STATE 11814), (sym_class_definition, STATE 925),
    (sym_trait_definition, STATE 925), (sym_decorated_definition, STATE 925),
    (sym_decorator, STATE 3670), (sym_block, STATE 5450), (sym_pattern, STATE 8086),
    (sym_tuple_pattern, STATE 8101), (sym_list_pattern, STATE 8101),
    (sym_list_splat_pattern, STATE 6819), (sym_as_pattern, STATE 7969),
    (sym_expression, STATE 9883), (sym_primary_expression, STATE 7326),
    (sym_comptime_expression, STATE 7017), (sym_transfer_expression, STATE 7017),
    (sym_not_operator, STATE 7969), (sym_boolean_operator, STATE 7969),
    (sym_binary_operator, STATE 7017), (sym_unary_operator, STATE 7017),
    (sym_comparison_operator, STATE 7969), (sym_lambda, STATE 7969),
    (sym_assignment, STATE 12425), (sym_augmented_assignment, STATE 12425),
    (sym_pattern_list, STATE 8578), (sym_yield, STATE 12425), (sym_attribute, STATE 6836),
    (sym_subscript, STATE 6838), (sym_call, STATE 6845), (sym_mlir_type, STATE 7017),
    (sym_list, STATE 7017), (sym_set, STATE 7017), (sym_tuple, STATE 7017),
    (sym_dictionary, STATE 7017), (sym_struct_literal, STATE 7017),
    (sym_list_comprehension, STATE 7017), (sym_dictionary_comprehension, STATE 7017),
    (sym_set_comprehension, STATE 7017), (sym_generator_expression, STATE 7017),
    (sym_parenthesized_expression, STATE 7017), (sym_conditional_expression, STATE 7969),
    (sym_concatenated_string, STATE 7017), (sym_string, STATE 6751), (sym_await, STATE 7017),
    (aux_sym_module_repeat1, STATE 925), (aux_sym_decorated_definition_repeat1, STATE 3670),
    (sym_identifier, ACTIONS 9), (anon_sym_import, ACTIONS 11), (anon_sym_from, ACTIONS 13),
    (anon_sym_LPAREN, ACTIONS 15), (anon_sym_STAR, ACTIONS 17), (anon_sym_print, ACTIONS 19),
    (anon_sym_comptime, ACTIONS 99), (anon_sym_assert, ACTIONS 23),
    (anon_sym___comptime_assert, ACTIONS 25), (anon_sym_return, ACTIONS 27),
    (anon_sym_del, ACTIONS 29), (anon_sym_raise, ACTIONS 31), (anon_sym_pass, ACTIONS 33),
    (anon_sym_break, ACTIONS 35), (anon_sym_continue, ACTIONS 37),
    (anon_sym___extension, ACTIONS 101), (anon_sym___mlir_region, ACTIONS 103),
    (anon_sym_if, ACTIONS 105), (anon_sym_match, ACTIONS 107), (anon_sym_async, ACTIONS 109),
    (anon_sym_for, ACTIONS 111), (anon_sym_while, ACTIONS 113), (anon_sym_try, ACTIONS 115),
    (anon_sym_with, ACTIONS 117), (anon_sym_def, ACTIONS 119), (anon_sym_fn, ACTIONS 119),
    (anon_sym_LBRACK, ACTIONS 59), (anon_sym_LBRACE, ACTIONS 61), (anon_sym_global, ACTIONS 63),
    (anon_sym_nonlocal, ACTIONS 65), (anon_sym_exec, ACTIONS 67), (anon_sym_type, ACTIONS 69),
    (anon_sym_class, ACTIONS 121), (anon_sym_struct, ACTIONS 121), (anon_sym_mut, ACTIONS 73),
    (anon_sym_out, ACTIONS 73), (anon_sym_trait, ACTIONS 123), (anon_sym_AT, ACTIONS 77),
    (anon_sym_DASH, ACTIONS 79), (anon_sym_PLUS, ACTIONS 79), (anon_sym_ref, ACTIONS 81),
    (anon_sym_var, ACTIONS 81), (anon_sym_not, ACTIONS 83), (anon_sym_TILDE, ACTIONS 79),
    (anon_sym_lambda, ACTIONS 85), (anon_sym_yield, ACTIONS 87), (sym_ellipsis, ACTIONS 89),
    (anon_sym___mlir_type, ACTIONS 91), (sym_integer, ACTIONS 93), (sym_float, ACTIONS 89),
    (anon_sym_await, ACTIONS 95), (sym_true, ACTIONS 93), (sym_false, ACTIONS 93),
    (sym_none, ACTIONS 93), (sym_comment, ACTIONS 3), (sym_line_continuation, ACTIONS 3),
    (sym__dedent, ACTIONS 129), (sym_string_start, ACTIONS 97)]"

definition parse_table_266 :: "(nat \<times> nat) list" where "parse_table_266 = [
    (sym__statement, STATE 925), (sym__simple_statements, STATE 925),
    (sym_import_statement, STATE 11814), (sym_future_import_statement, STATE 11814),
    (sym_import_from_statement, STATE 11814), (sym_print_statement, STATE 11814),
    (sym_assert_statement, STATE 11814), (sym_comptime_assert_statement, STATE 11814),
    (sym_expression_statement, STATE 11814), (sym_tuple_expression, STATE 12425),
    (sym_named_expression, STATE 7969), (sym__named_expression_lhs, STATE 12752),
    (sym_return_statement, STATE 11814), (sym_delete_statement, STATE 11814),
    (sym_raise_statement, STATE 11814), (sym_pass_statement, STATE 11814),
    (sym_break_statement, STATE 11814), (sym_continue_statement, STATE 11814),
    (sym_extension_definition, STATE 925), (sym_mlir_region, STATE 925),
    (sym_comptime_statement, STATE 925), (sym_if_statement, STATE 925),
    (sym_match_statement, STATE 925), (sym_for_statement, STATE 925),
    (sym_while_statement, STATE 925), (sym_try_statement, STATE 925),
    (sym_with_statement, STATE 925), (sym_function_definition, STATE 925),
    (sym_global_statement, STATE 11814), (sym_nonlocal_statement, STATE 11814),
    (sym_exec_statement, STATE 11814), (sym_type_alias_statement, STATE 11814),
    (sym_parameterized_alias_statement, STATE 11814), (sym_class_definition, STATE 925),
    (sym_trait_definition, STATE 925), (sym_decorated_definition, STATE 925),
    (sym_decorator, STATE 3670), (sym_block, STATE 5454), (sym_pattern, STATE 8086),
    (sym_tuple_pattern, STATE 8101), (sym_list_pattern, STATE 8101),
    (sym_list_splat_pattern, STATE 6819), (sym_as_pattern, STATE 7969),
    (sym_expression, STATE 9883), (sym_primary_expression, STATE 7326),
    (sym_comptime_expression, STATE 7017), (sym_transfer_expression, STATE 7017),
    (sym_not_operator, STATE 7969), (sym_boolean_operator, STATE 7969),
    (sym_binary_operator, STATE 7017), (sym_unary_operator, STATE 7017),
    (sym_comparison_operator, STATE 7969), (sym_lambda, STATE 7969),
    (sym_assignment, STATE 12425), (sym_augmented_assignment, STATE 12425),
    (sym_pattern_list, STATE 8578), (sym_yield, STATE 12425), (sym_attribute, STATE 6836),
    (sym_subscript, STATE 6838), (sym_call, STATE 6845), (sym_mlir_type, STATE 7017),
    (sym_list, STATE 7017), (sym_set, STATE 7017), (sym_tuple, STATE 7017),
    (sym_dictionary, STATE 7017), (sym_struct_literal, STATE 7017),
    (sym_list_comprehension, STATE 7017), (sym_dictionary_comprehension, STATE 7017),
    (sym_set_comprehension, STATE 7017), (sym_generator_expression, STATE 7017),
    (sym_parenthesized_expression, STATE 7017), (sym_conditional_expression, STATE 7969),
    (sym_concatenated_string, STATE 7017), (sym_string, STATE 6751), (sym_await, STATE 7017),
    (aux_sym_module_repeat1, STATE 925), (aux_sym_decorated_definition_repeat1, STATE 3670),
    (sym_identifier, ACTIONS 9), (anon_sym_import, ACTIONS 11), (anon_sym_from, ACTIONS 13),
    (anon_sym_LPAREN, ACTIONS 15), (anon_sym_STAR, ACTIONS 17), (anon_sym_print, ACTIONS 19),
    (anon_sym_comptime, ACTIONS 99), (anon_sym_assert, ACTIONS 23),
    (anon_sym___comptime_assert, ACTIONS 25), (anon_sym_return, ACTIONS 27),
    (anon_sym_del, ACTIONS 29), (anon_sym_raise, ACTIONS 31), (anon_sym_pass, ACTIONS 33),
    (anon_sym_break, ACTIONS 35), (anon_sym_continue, ACTIONS 37),
    (anon_sym___extension, ACTIONS 101), (anon_sym___mlir_region, ACTIONS 103),
    (anon_sym_if, ACTIONS 105), (anon_sym_match, ACTIONS 107), (anon_sym_async, ACTIONS 109),
    (anon_sym_for, ACTIONS 111), (anon_sym_while, ACTIONS 113), (anon_sym_try, ACTIONS 115),
    (anon_sym_with, ACTIONS 117), (anon_sym_def, ACTIONS 119), (anon_sym_fn, ACTIONS 119),
    (anon_sym_LBRACK, ACTIONS 59), (anon_sym_LBRACE, ACTIONS 61), (anon_sym_global, ACTIONS 63),
    (anon_sym_nonlocal, ACTIONS 65), (anon_sym_exec, ACTIONS 67), (anon_sym_type, ACTIONS 69),
    (anon_sym_class, ACTIONS 121), (anon_sym_struct, ACTIONS 121), (anon_sym_mut, ACTIONS 73),
    (anon_sym_out, ACTIONS 73), (anon_sym_trait, ACTIONS 123), (anon_sym_AT, ACTIONS 77),
    (anon_sym_DASH, ACTIONS 79), (anon_sym_PLUS, ACTIONS 79), (anon_sym_ref, ACTIONS 81),
    (anon_sym_var, ACTIONS 81), (anon_sym_not, ACTIONS 83), (anon_sym_TILDE, ACTIONS 79),
    (anon_sym_lambda, ACTIONS 85), (anon_sym_yield, ACTIONS 87), (sym_ellipsis, ACTIONS 89),
    (anon_sym___mlir_type, ACTIONS 91), (sym_integer, ACTIONS 93), (sym_float, ACTIONS 89),
    (anon_sym_await, ACTIONS 95), (sym_true, ACTIONS 93), (sym_false, ACTIONS 93),
    (sym_none, ACTIONS 93), (sym_comment, ACTIONS 3), (sym_line_continuation, ACTIONS 3),
    (sym__dedent, ACTIONS 129), (sym_string_start, ACTIONS 97)]"

definition parse_table_267 :: "(nat \<times> nat) list" where "parse_table_267 = [
    (sym__statement, STATE 925), (sym__simple_statements, STATE 925),
    (sym_import_statement, STATE 11814), (sym_future_import_statement, STATE 11814),
    (sym_import_from_statement, STATE 11814), (sym_print_statement, STATE 11814),
    (sym_assert_statement, STATE 11814), (sym_comptime_assert_statement, STATE 11814),
    (sym_expression_statement, STATE 11814), (sym_tuple_expression, STATE 12425),
    (sym_named_expression, STATE 7969), (sym__named_expression_lhs, STATE 12752),
    (sym_return_statement, STATE 11814), (sym_delete_statement, STATE 11814),
    (sym_raise_statement, STATE 11814), (sym_pass_statement, STATE 11814),
    (sym_break_statement, STATE 11814), (sym_continue_statement, STATE 11814),
    (sym_extension_definition, STATE 925), (sym_mlir_region, STATE 925),
    (sym_comptime_statement, STATE 925), (sym_if_statement, STATE 925),
    (sym_match_statement, STATE 925), (sym_for_statement, STATE 925),
    (sym_while_statement, STATE 925), (sym_try_statement, STATE 925),
    (sym_with_statement, STATE 925), (sym_function_definition, STATE 925),
    (sym_global_statement, STATE 11814), (sym_nonlocal_statement, STATE 11814),
    (sym_exec_statement, STATE 11814), (sym_type_alias_statement, STATE 11814),
    (sym_parameterized_alias_statement, STATE 11814), (sym_class_definition, STATE 925),
    (sym_trait_definition, STATE 925), (sym_decorated_definition, STATE 925),
    (sym_decorator, STATE 3670), (sym_block, STATE 5459), (sym_pattern, STATE 8086),
    (sym_tuple_pattern, STATE 8101), (sym_list_pattern, STATE 8101),
    (sym_list_splat_pattern, STATE 6819), (sym_as_pattern, STATE 7969),
    (sym_expression, STATE 9883), (sym_primary_expression, STATE 7326),
    (sym_comptime_expression, STATE 7017), (sym_transfer_expression, STATE 7017),
    (sym_not_operator, STATE 7969), (sym_boolean_operator, STATE 7969),
    (sym_binary_operator, STATE 7017), (sym_unary_operator, STATE 7017),
    (sym_comparison_operator, STATE 7969), (sym_lambda, STATE 7969),
    (sym_assignment, STATE 12425), (sym_augmented_assignment, STATE 12425),
    (sym_pattern_list, STATE 8578), (sym_yield, STATE 12425), (sym_attribute, STATE 6836),
    (sym_subscript, STATE 6838), (sym_call, STATE 6845), (sym_mlir_type, STATE 7017),
    (sym_list, STATE 7017), (sym_set, STATE 7017), (sym_tuple, STATE 7017),
    (sym_dictionary, STATE 7017), (sym_struct_literal, STATE 7017),
    (sym_list_comprehension, STATE 7017), (sym_dictionary_comprehension, STATE 7017),
    (sym_set_comprehension, STATE 7017), (sym_generator_expression, STATE 7017),
    (sym_parenthesized_expression, STATE 7017), (sym_conditional_expression, STATE 7969),
    (sym_concatenated_string, STATE 7017), (sym_string, STATE 6751), (sym_await, STATE 7017),
    (aux_sym_module_repeat1, STATE 925), (aux_sym_decorated_definition_repeat1, STATE 3670),
    (sym_identifier, ACTIONS 9), (anon_sym_import, ACTIONS 11), (anon_sym_from, ACTIONS 13),
    (anon_sym_LPAREN, ACTIONS 15), (anon_sym_STAR, ACTIONS 17), (anon_sym_print, ACTIONS 19),
    (anon_sym_comptime, ACTIONS 99), (anon_sym_assert, ACTIONS 23),
    (anon_sym___comptime_assert, ACTIONS 25), (anon_sym_return, ACTIONS 27),
    (anon_sym_del, ACTIONS 29), (anon_sym_raise, ACTIONS 31), (anon_sym_pass, ACTIONS 33),
    (anon_sym_break, ACTIONS 35), (anon_sym_continue, ACTIONS 37),
    (anon_sym___extension, ACTIONS 101), (anon_sym___mlir_region, ACTIONS 103),
    (anon_sym_if, ACTIONS 105), (anon_sym_match, ACTIONS 107), (anon_sym_async, ACTIONS 109),
    (anon_sym_for, ACTIONS 111), (anon_sym_while, ACTIONS 113), (anon_sym_try, ACTIONS 115),
    (anon_sym_with, ACTIONS 117), (anon_sym_def, ACTIONS 119), (anon_sym_fn, ACTIONS 119),
    (anon_sym_LBRACK, ACTIONS 59), (anon_sym_LBRACE, ACTIONS 61), (anon_sym_global, ACTIONS 63),
    (anon_sym_nonlocal, ACTIONS 65), (anon_sym_exec, ACTIONS 67), (anon_sym_type, ACTIONS 69),
    (anon_sym_class, ACTIONS 121), (anon_sym_struct, ACTIONS 121), (anon_sym_mut, ACTIONS 73),
    (anon_sym_out, ACTIONS 73), (anon_sym_trait, ACTIONS 123), (anon_sym_AT, ACTIONS 77),
    (anon_sym_DASH, ACTIONS 79), (anon_sym_PLUS, ACTIONS 79), (anon_sym_ref, ACTIONS 81),
    (anon_sym_var, ACTIONS 81), (anon_sym_not, ACTIONS 83), (anon_sym_TILDE, ACTIONS 79),
    (anon_sym_lambda, ACTIONS 85), (anon_sym_yield, ACTIONS 87), (sym_ellipsis, ACTIONS 89),
    (anon_sym___mlir_type, ACTIONS 91), (sym_integer, ACTIONS 93), (sym_float, ACTIONS 89),
    (anon_sym_await, ACTIONS 95), (sym_true, ACTIONS 93), (sym_false, ACTIONS 93),
    (sym_none, ACTIONS 93), (sym_comment, ACTIONS 3), (sym_line_continuation, ACTIONS 3),
    (sym__dedent, ACTIONS 129), (sym_string_start, ACTIONS 97)]"

definition parse_table_268 :: "(nat \<times> nat) list" where "parse_table_268 = [
    (sym__statement, STATE 925), (sym__simple_statements, STATE 925),
    (sym_import_statement, STATE 11814), (sym_future_import_statement, STATE 11814),
    (sym_import_from_statement, STATE 11814), (sym_print_statement, STATE 11814),
    (sym_assert_statement, STATE 11814), (sym_comptime_assert_statement, STATE 11814),
    (sym_expression_statement, STATE 11814), (sym_tuple_expression, STATE 12425),
    (sym_named_expression, STATE 7969), (sym__named_expression_lhs, STATE 12752),
    (sym_return_statement, STATE 11814), (sym_delete_statement, STATE 11814),
    (sym_raise_statement, STATE 11814), (sym_pass_statement, STATE 11814),
    (sym_break_statement, STATE 11814), (sym_continue_statement, STATE 11814),
    (sym_extension_definition, STATE 925), (sym_mlir_region, STATE 925),
    (sym_comptime_statement, STATE 925), (sym_if_statement, STATE 925),
    (sym_match_statement, STATE 925), (sym_for_statement, STATE 925),
    (sym_while_statement, STATE 925), (sym_try_statement, STATE 925),
    (sym_with_statement, STATE 925), (sym_function_definition, STATE 925),
    (sym_global_statement, STATE 11814), (sym_nonlocal_statement, STATE 11814),
    (sym_exec_statement, STATE 11814), (sym_type_alias_statement, STATE 11814),
    (sym_parameterized_alias_statement, STATE 11814), (sym_class_definition, STATE 925),
    (sym_trait_definition, STATE 925), (sym_decorated_definition, STATE 925),
    (sym_decorator, STATE 3670), (sym_block, STATE 5464), (sym_pattern, STATE 8086),
    (sym_tuple_pattern, STATE 8101), (sym_list_pattern, STATE 8101),
    (sym_list_splat_pattern, STATE 6819), (sym_as_pattern, STATE 7969),
    (sym_expression, STATE 9883), (sym_primary_expression, STATE 7326),
    (sym_comptime_expression, STATE 7017), (sym_transfer_expression, STATE 7017),
    (sym_not_operator, STATE 7969), (sym_boolean_operator, STATE 7969),
    (sym_binary_operator, STATE 7017), (sym_unary_operator, STATE 7017),
    (sym_comparison_operator, STATE 7969), (sym_lambda, STATE 7969),
    (sym_assignment, STATE 12425), (sym_augmented_assignment, STATE 12425),
    (sym_pattern_list, STATE 8578), (sym_yield, STATE 12425), (sym_attribute, STATE 6836),
    (sym_subscript, STATE 6838), (sym_call, STATE 6845), (sym_mlir_type, STATE 7017),
    (sym_list, STATE 7017), (sym_set, STATE 7017), (sym_tuple, STATE 7017),
    (sym_dictionary, STATE 7017), (sym_struct_literal, STATE 7017),
    (sym_list_comprehension, STATE 7017), (sym_dictionary_comprehension, STATE 7017),
    (sym_set_comprehension, STATE 7017), (sym_generator_expression, STATE 7017),
    (sym_parenthesized_expression, STATE 7017), (sym_conditional_expression, STATE 7969),
    (sym_concatenated_string, STATE 7017), (sym_string, STATE 6751), (sym_await, STATE 7017),
    (aux_sym_module_repeat1, STATE 925), (aux_sym_decorated_definition_repeat1, STATE 3670),
    (sym_identifier, ACTIONS 9), (anon_sym_import, ACTIONS 11), (anon_sym_from, ACTIONS 13),
    (anon_sym_LPAREN, ACTIONS 15), (anon_sym_STAR, ACTIONS 17), (anon_sym_print, ACTIONS 19),
    (anon_sym_comptime, ACTIONS 99), (anon_sym_assert, ACTIONS 23),
    (anon_sym___comptime_assert, ACTIONS 25), (anon_sym_return, ACTIONS 27),
    (anon_sym_del, ACTIONS 29), (anon_sym_raise, ACTIONS 31), (anon_sym_pass, ACTIONS 33),
    (anon_sym_break, ACTIONS 35), (anon_sym_continue, ACTIONS 37),
    (anon_sym___extension, ACTIONS 101), (anon_sym___mlir_region, ACTIONS 103),
    (anon_sym_if, ACTIONS 105), (anon_sym_match, ACTIONS 107), (anon_sym_async, ACTIONS 109),
    (anon_sym_for, ACTIONS 111), (anon_sym_while, ACTIONS 113), (anon_sym_try, ACTIONS 115),
    (anon_sym_with, ACTIONS 117), (anon_sym_def, ACTIONS 119), (anon_sym_fn, ACTIONS 119),
    (anon_sym_LBRACK, ACTIONS 59), (anon_sym_LBRACE, ACTIONS 61), (anon_sym_global, ACTIONS 63),
    (anon_sym_nonlocal, ACTIONS 65), (anon_sym_exec, ACTIONS 67), (anon_sym_type, ACTIONS 69),
    (anon_sym_class, ACTIONS 121), (anon_sym_struct, ACTIONS 121), (anon_sym_mut, ACTIONS 73),
    (anon_sym_out, ACTIONS 73), (anon_sym_trait, ACTIONS 123), (anon_sym_AT, ACTIONS 77),
    (anon_sym_DASH, ACTIONS 79), (anon_sym_PLUS, ACTIONS 79), (anon_sym_ref, ACTIONS 81),
    (anon_sym_var, ACTIONS 81), (anon_sym_not, ACTIONS 83), (anon_sym_TILDE, ACTIONS 79),
    (anon_sym_lambda, ACTIONS 85), (anon_sym_yield, ACTIONS 87), (sym_ellipsis, ACTIONS 89),
    (anon_sym___mlir_type, ACTIONS 91), (sym_integer, ACTIONS 93), (sym_float, ACTIONS 89),
    (anon_sym_await, ACTIONS 95), (sym_true, ACTIONS 93), (sym_false, ACTIONS 93),
    (sym_none, ACTIONS 93), (sym_comment, ACTIONS 3), (sym_line_continuation, ACTIONS 3),
    (sym__dedent, ACTIONS 129), (sym_string_start, ACTIONS 97)]"

definition parse_table_269 :: "(nat \<times> nat) list" where "parse_table_269 = [
    (sym__statement, STATE 925), (sym__simple_statements, STATE 925),
    (sym_import_statement, STATE 11814), (sym_future_import_statement, STATE 11814),
    (sym_import_from_statement, STATE 11814), (sym_print_statement, STATE 11814),
    (sym_assert_statement, STATE 11814), (sym_comptime_assert_statement, STATE 11814),
    (sym_expression_statement, STATE 11814), (sym_tuple_expression, STATE 12425),
    (sym_named_expression, STATE 7969), (sym__named_expression_lhs, STATE 12752),
    (sym_return_statement, STATE 11814), (sym_delete_statement, STATE 11814),
    (sym_raise_statement, STATE 11814), (sym_pass_statement, STATE 11814),
    (sym_break_statement, STATE 11814), (sym_continue_statement, STATE 11814),
    (sym_extension_definition, STATE 925), (sym_mlir_region, STATE 925),
    (sym_comptime_statement, STATE 925), (sym_if_statement, STATE 925),
    (sym_match_statement, STATE 925), (sym_for_statement, STATE 925),
    (sym_while_statement, STATE 925), (sym_try_statement, STATE 925),
    (sym_with_statement, STATE 925), (sym_function_definition, STATE 925),
    (sym_global_statement, STATE 11814), (sym_nonlocal_statement, STATE 11814),
    (sym_exec_statement, STATE 11814), (sym_type_alias_statement, STATE 11814),
    (sym_parameterized_alias_statement, STATE 11814), (sym_class_definition, STATE 925),
    (sym_trait_definition, STATE 925), (sym_decorated_definition, STATE 925),
    (sym_decorator, STATE 3670), (sym_block, STATE 5466), (sym_pattern, STATE 8086),
    (sym_tuple_pattern, STATE 8101), (sym_list_pattern, STATE 8101),
    (sym_list_splat_pattern, STATE 6819), (sym_as_pattern, STATE 7969),
    (sym_expression, STATE 9883), (sym_primary_expression, STATE 7326),
    (sym_comptime_expression, STATE 7017), (sym_transfer_expression, STATE 7017),
    (sym_not_operator, STATE 7969), (sym_boolean_operator, STATE 7969),
    (sym_binary_operator, STATE 7017), (sym_unary_operator, STATE 7017),
    (sym_comparison_operator, STATE 7969), (sym_lambda, STATE 7969),
    (sym_assignment, STATE 12425), (sym_augmented_assignment, STATE 12425),
    (sym_pattern_list, STATE 8578), (sym_yield, STATE 12425), (sym_attribute, STATE 6836),
    (sym_subscript, STATE 6838), (sym_call, STATE 6845), (sym_mlir_type, STATE 7017),
    (sym_list, STATE 7017), (sym_set, STATE 7017), (sym_tuple, STATE 7017),
    (sym_dictionary, STATE 7017), (sym_struct_literal, STATE 7017),
    (sym_list_comprehension, STATE 7017), (sym_dictionary_comprehension, STATE 7017),
    (sym_set_comprehension, STATE 7017), (sym_generator_expression, STATE 7017),
    (sym_parenthesized_expression, STATE 7017), (sym_conditional_expression, STATE 7969),
    (sym_concatenated_string, STATE 7017), (sym_string, STATE 6751), (sym_await, STATE 7017),
    (aux_sym_module_repeat1, STATE 925), (aux_sym_decorated_definition_repeat1, STATE 3670),
    (sym_identifier, ACTIONS 9), (anon_sym_import, ACTIONS 11), (anon_sym_from, ACTIONS 13),
    (anon_sym_LPAREN, ACTIONS 15), (anon_sym_STAR, ACTIONS 17), (anon_sym_print, ACTIONS 19),
    (anon_sym_comptime, ACTIONS 99), (anon_sym_assert, ACTIONS 23),
    (anon_sym___comptime_assert, ACTIONS 25), (anon_sym_return, ACTIONS 27),
    (anon_sym_del, ACTIONS 29), (anon_sym_raise, ACTIONS 31), (anon_sym_pass, ACTIONS 33),
    (anon_sym_break, ACTIONS 35), (anon_sym_continue, ACTIONS 37),
    (anon_sym___extension, ACTIONS 101), (anon_sym___mlir_region, ACTIONS 103),
    (anon_sym_if, ACTIONS 105), (anon_sym_match, ACTIONS 107), (anon_sym_async, ACTIONS 109),
    (anon_sym_for, ACTIONS 111), (anon_sym_while, ACTIONS 113), (anon_sym_try, ACTIONS 115),
    (anon_sym_with, ACTIONS 117), (anon_sym_def, ACTIONS 119), (anon_sym_fn, ACTIONS 119),
    (anon_sym_LBRACK, ACTIONS 59), (anon_sym_LBRACE, ACTIONS 61), (anon_sym_global, ACTIONS 63),
    (anon_sym_nonlocal, ACTIONS 65), (anon_sym_exec, ACTIONS 67), (anon_sym_type, ACTIONS 69),
    (anon_sym_class, ACTIONS 121), (anon_sym_struct, ACTIONS 121), (anon_sym_mut, ACTIONS 73),
    (anon_sym_out, ACTIONS 73), (anon_sym_trait, ACTIONS 123), (anon_sym_AT, ACTIONS 77),
    (anon_sym_DASH, ACTIONS 79), (anon_sym_PLUS, ACTIONS 79), (anon_sym_ref, ACTIONS 81),
    (anon_sym_var, ACTIONS 81), (anon_sym_not, ACTIONS 83), (anon_sym_TILDE, ACTIONS 79),
    (anon_sym_lambda, ACTIONS 85), (anon_sym_yield, ACTIONS 87), (sym_ellipsis, ACTIONS 89),
    (anon_sym___mlir_type, ACTIONS 91), (sym_integer, ACTIONS 93), (sym_float, ACTIONS 89),
    (anon_sym_await, ACTIONS 95), (sym_true, ACTIONS 93), (sym_false, ACTIONS 93),
    (sym_none, ACTIONS 93), (sym_comment, ACTIONS 3), (sym_line_continuation, ACTIONS 3),
    (sym__dedent, ACTIONS 129), (sym_string_start, ACTIONS 97)]"

definition parse_table_270 :: "(nat \<times> nat) list" where "parse_table_270 = [
    (sym__statement, STATE 925), (sym__simple_statements, STATE 925),
    (sym_import_statement, STATE 11814), (sym_future_import_statement, STATE 11814),
    (sym_import_from_statement, STATE 11814), (sym_print_statement, STATE 11814),
    (sym_assert_statement, STATE 11814), (sym_comptime_assert_statement, STATE 11814),
    (sym_expression_statement, STATE 11814), (sym_tuple_expression, STATE 12425),
    (sym_named_expression, STATE 7969), (sym__named_expression_lhs, STATE 12752),
    (sym_return_statement, STATE 11814), (sym_delete_statement, STATE 11814),
    (sym_raise_statement, STATE 11814), (sym_pass_statement, STATE 11814),
    (sym_break_statement, STATE 11814), (sym_continue_statement, STATE 11814),
    (sym_extension_definition, STATE 925), (sym_mlir_region, STATE 925),
    (sym_comptime_statement, STATE 925), (sym_if_statement, STATE 925),
    (sym_match_statement, STATE 925), (sym_for_statement, STATE 925),
    (sym_while_statement, STATE 925), (sym_try_statement, STATE 925),
    (sym_with_statement, STATE 925), (sym_function_definition, STATE 925),
    (sym_global_statement, STATE 11814), (sym_nonlocal_statement, STATE 11814),
    (sym_exec_statement, STATE 11814), (sym_type_alias_statement, STATE 11814),
    (sym_parameterized_alias_statement, STATE 11814), (sym_class_definition, STATE 925),
    (sym_trait_definition, STATE 925), (sym_decorated_definition, STATE 925),
    (sym_decorator, STATE 3670), (sym_block, STATE 5476), (sym_pattern, STATE 8086),
    (sym_tuple_pattern, STATE 8101), (sym_list_pattern, STATE 8101),
    (sym_list_splat_pattern, STATE 6819), (sym_as_pattern, STATE 7969),
    (sym_expression, STATE 9883), (sym_primary_expression, STATE 7326),
    (sym_comptime_expression, STATE 7017), (sym_transfer_expression, STATE 7017),
    (sym_not_operator, STATE 7969), (sym_boolean_operator, STATE 7969),
    (sym_binary_operator, STATE 7017), (sym_unary_operator, STATE 7017),
    (sym_comparison_operator, STATE 7969), (sym_lambda, STATE 7969),
    (sym_assignment, STATE 12425), (sym_augmented_assignment, STATE 12425),
    (sym_pattern_list, STATE 8578), (sym_yield, STATE 12425), (sym_attribute, STATE 6836),
    (sym_subscript, STATE 6838), (sym_call, STATE 6845), (sym_mlir_type, STATE 7017),
    (sym_list, STATE 7017), (sym_set, STATE 7017), (sym_tuple, STATE 7017),
    (sym_dictionary, STATE 7017), (sym_struct_literal, STATE 7017),
    (sym_list_comprehension, STATE 7017), (sym_dictionary_comprehension, STATE 7017),
    (sym_set_comprehension, STATE 7017), (sym_generator_expression, STATE 7017),
    (sym_parenthesized_expression, STATE 7017), (sym_conditional_expression, STATE 7969),
    (sym_concatenated_string, STATE 7017), (sym_string, STATE 6751), (sym_await, STATE 7017),
    (aux_sym_module_repeat1, STATE 925), (aux_sym_decorated_definition_repeat1, STATE 3670),
    (sym_identifier, ACTIONS 9), (anon_sym_import, ACTIONS 11), (anon_sym_from, ACTIONS 13),
    (anon_sym_LPAREN, ACTIONS 15), (anon_sym_STAR, ACTIONS 17), (anon_sym_print, ACTIONS 19),
    (anon_sym_comptime, ACTIONS 99), (anon_sym_assert, ACTIONS 23),
    (anon_sym___comptime_assert, ACTIONS 25), (anon_sym_return, ACTIONS 27),
    (anon_sym_del, ACTIONS 29), (anon_sym_raise, ACTIONS 31), (anon_sym_pass, ACTIONS 33),
    (anon_sym_break, ACTIONS 35), (anon_sym_continue, ACTIONS 37),
    (anon_sym___extension, ACTIONS 101), (anon_sym___mlir_region, ACTIONS 103),
    (anon_sym_if, ACTIONS 105), (anon_sym_match, ACTIONS 107), (anon_sym_async, ACTIONS 109),
    (anon_sym_for, ACTIONS 111), (anon_sym_while, ACTIONS 113), (anon_sym_try, ACTIONS 115),
    (anon_sym_with, ACTIONS 117), (anon_sym_def, ACTIONS 119), (anon_sym_fn, ACTIONS 119),
    (anon_sym_LBRACK, ACTIONS 59), (anon_sym_LBRACE, ACTIONS 61), (anon_sym_global, ACTIONS 63),
    (anon_sym_nonlocal, ACTIONS 65), (anon_sym_exec, ACTIONS 67), (anon_sym_type, ACTIONS 69),
    (anon_sym_class, ACTIONS 121), (anon_sym_struct, ACTIONS 121), (anon_sym_mut, ACTIONS 73),
    (anon_sym_out, ACTIONS 73), (anon_sym_trait, ACTIONS 123), (anon_sym_AT, ACTIONS 77),
    (anon_sym_DASH, ACTIONS 79), (anon_sym_PLUS, ACTIONS 79), (anon_sym_ref, ACTIONS 81),
    (anon_sym_var, ACTIONS 81), (anon_sym_not, ACTIONS 83), (anon_sym_TILDE, ACTIONS 79),
    (anon_sym_lambda, ACTIONS 85), (anon_sym_yield, ACTIONS 87), (sym_ellipsis, ACTIONS 89),
    (anon_sym___mlir_type, ACTIONS 91), (sym_integer, ACTIONS 93), (sym_float, ACTIONS 89),
    (anon_sym_await, ACTIONS 95), (sym_true, ACTIONS 93), (sym_false, ACTIONS 93),
    (sym_none, ACTIONS 93), (sym_comment, ACTIONS 3), (sym_line_continuation, ACTIONS 3),
    (sym__dedent, ACTIONS 129), (sym_string_start, ACTIONS 97)]"

definition parse_table_271 :: "(nat \<times> nat) list" where "parse_table_271 = [
    (sym__statement, STATE 925), (sym__simple_statements, STATE 925),
    (sym_import_statement, STATE 11814), (sym_future_import_statement, STATE 11814),
    (sym_import_from_statement, STATE 11814), (sym_print_statement, STATE 11814),
    (sym_assert_statement, STATE 11814), (sym_comptime_assert_statement, STATE 11814),
    (sym_expression_statement, STATE 11814), (sym_tuple_expression, STATE 12425),
    (sym_named_expression, STATE 7969), (sym__named_expression_lhs, STATE 12752),
    (sym_return_statement, STATE 11814), (sym_delete_statement, STATE 11814),
    (sym_raise_statement, STATE 11814), (sym_pass_statement, STATE 11814),
    (sym_break_statement, STATE 11814), (sym_continue_statement, STATE 11814),
    (sym_extension_definition, STATE 925), (sym_mlir_region, STATE 925),
    (sym_comptime_statement, STATE 925), (sym_if_statement, STATE 925),
    (sym_match_statement, STATE 925), (sym_for_statement, STATE 925),
    (sym_while_statement, STATE 925), (sym_try_statement, STATE 925),
    (sym_with_statement, STATE 925), (sym_function_definition, STATE 925),
    (sym_global_statement, STATE 11814), (sym_nonlocal_statement, STATE 11814),
    (sym_exec_statement, STATE 11814), (sym_type_alias_statement, STATE 11814),
    (sym_parameterized_alias_statement, STATE 11814), (sym_class_definition, STATE 925),
    (sym_trait_definition, STATE 925), (sym_decorated_definition, STATE 925),
    (sym_decorator, STATE 3670), (sym_block, STATE 5477), (sym_pattern, STATE 8086),
    (sym_tuple_pattern, STATE 8101), (sym_list_pattern, STATE 8101),
    (sym_list_splat_pattern, STATE 6819), (sym_as_pattern, STATE 7969),
    (sym_expression, STATE 9883), (sym_primary_expression, STATE 7326),
    (sym_comptime_expression, STATE 7017), (sym_transfer_expression, STATE 7017),
    (sym_not_operator, STATE 7969), (sym_boolean_operator, STATE 7969),
    (sym_binary_operator, STATE 7017), (sym_unary_operator, STATE 7017),
    (sym_comparison_operator, STATE 7969), (sym_lambda, STATE 7969),
    (sym_assignment, STATE 12425), (sym_augmented_assignment, STATE 12425),
    (sym_pattern_list, STATE 8578), (sym_yield, STATE 12425), (sym_attribute, STATE 6836),
    (sym_subscript, STATE 6838), (sym_call, STATE 6845), (sym_mlir_type, STATE 7017),
    (sym_list, STATE 7017), (sym_set, STATE 7017), (sym_tuple, STATE 7017),
    (sym_dictionary, STATE 7017), (sym_struct_literal, STATE 7017),
    (sym_list_comprehension, STATE 7017), (sym_dictionary_comprehension, STATE 7017),
    (sym_set_comprehension, STATE 7017), (sym_generator_expression, STATE 7017),
    (sym_parenthesized_expression, STATE 7017), (sym_conditional_expression, STATE 7969),
    (sym_concatenated_string, STATE 7017), (sym_string, STATE 6751), (sym_await, STATE 7017),
    (aux_sym_module_repeat1, STATE 925), (aux_sym_decorated_definition_repeat1, STATE 3670),
    (sym_identifier, ACTIONS 9), (anon_sym_import, ACTIONS 11), (anon_sym_from, ACTIONS 13),
    (anon_sym_LPAREN, ACTIONS 15), (anon_sym_STAR, ACTIONS 17), (anon_sym_print, ACTIONS 19),
    (anon_sym_comptime, ACTIONS 99), (anon_sym_assert, ACTIONS 23),
    (anon_sym___comptime_assert, ACTIONS 25), (anon_sym_return, ACTIONS 27),
    (anon_sym_del, ACTIONS 29), (anon_sym_raise, ACTIONS 31), (anon_sym_pass, ACTIONS 33),
    (anon_sym_break, ACTIONS 35), (anon_sym_continue, ACTIONS 37),
    (anon_sym___extension, ACTIONS 101), (anon_sym___mlir_region, ACTIONS 103),
    (anon_sym_if, ACTIONS 105), (anon_sym_match, ACTIONS 107), (anon_sym_async, ACTIONS 109),
    (anon_sym_for, ACTIONS 111), (anon_sym_while, ACTIONS 113), (anon_sym_try, ACTIONS 115),
    (anon_sym_with, ACTIONS 117), (anon_sym_def, ACTIONS 119), (anon_sym_fn, ACTIONS 119),
    (anon_sym_LBRACK, ACTIONS 59), (anon_sym_LBRACE, ACTIONS 61), (anon_sym_global, ACTIONS 63),
    (anon_sym_nonlocal, ACTIONS 65), (anon_sym_exec, ACTIONS 67), (anon_sym_type, ACTIONS 69),
    (anon_sym_class, ACTIONS 121), (anon_sym_struct, ACTIONS 121), (anon_sym_mut, ACTIONS 73),
    (anon_sym_out, ACTIONS 73), (anon_sym_trait, ACTIONS 123), (anon_sym_AT, ACTIONS 77),
    (anon_sym_DASH, ACTIONS 79), (anon_sym_PLUS, ACTIONS 79), (anon_sym_ref, ACTIONS 81),
    (anon_sym_var, ACTIONS 81), (anon_sym_not, ACTIONS 83), (anon_sym_TILDE, ACTIONS 79),
    (anon_sym_lambda, ACTIONS 85), (anon_sym_yield, ACTIONS 87), (sym_ellipsis, ACTIONS 89),
    (anon_sym___mlir_type, ACTIONS 91), (sym_integer, ACTIONS 93), (sym_float, ACTIONS 89),
    (anon_sym_await, ACTIONS 95), (sym_true, ACTIONS 93), (sym_false, ACTIONS 93),
    (sym_none, ACTIONS 93), (sym_comment, ACTIONS 3), (sym_line_continuation, ACTIONS 3),
    (sym__dedent, ACTIONS 129), (sym_string_start, ACTIONS 97)]"

definition parse_table_272 :: "(nat \<times> nat) list" where "parse_table_272 = [
    (sym__statement, STATE 925), (sym__simple_statements, STATE 925),
    (sym_import_statement, STATE 11814), (sym_future_import_statement, STATE 11814),
    (sym_import_from_statement, STATE 11814), (sym_print_statement, STATE 11814),
    (sym_assert_statement, STATE 11814), (sym_comptime_assert_statement, STATE 11814),
    (sym_expression_statement, STATE 11814), (sym_tuple_expression, STATE 12425),
    (sym_named_expression, STATE 7969), (sym__named_expression_lhs, STATE 12752),
    (sym_return_statement, STATE 11814), (sym_delete_statement, STATE 11814),
    (sym_raise_statement, STATE 11814), (sym_pass_statement, STATE 11814),
    (sym_break_statement, STATE 11814), (sym_continue_statement, STATE 11814),
    (sym_extension_definition, STATE 925), (sym_mlir_region, STATE 925),
    (sym_comptime_statement, STATE 925), (sym_if_statement, STATE 925),
    (sym_match_statement, STATE 925), (sym_for_statement, STATE 925),
    (sym_while_statement, STATE 925), (sym_try_statement, STATE 925),
    (sym_with_statement, STATE 925), (sym_function_definition, STATE 925),
    (sym_global_statement, STATE 11814), (sym_nonlocal_statement, STATE 11814),
    (sym_exec_statement, STATE 11814), (sym_type_alias_statement, STATE 11814),
    (sym_parameterized_alias_statement, STATE 11814), (sym_class_definition, STATE 925),
    (sym_trait_definition, STATE 925), (sym_decorated_definition, STATE 925),
    (sym_decorator, STATE 3670), (sym_block, STATE 5478), (sym_pattern, STATE 8086),
    (sym_tuple_pattern, STATE 8101), (sym_list_pattern, STATE 8101),
    (sym_list_splat_pattern, STATE 6819), (sym_as_pattern, STATE 7969),
    (sym_expression, STATE 9883), (sym_primary_expression, STATE 7326),
    (sym_comptime_expression, STATE 7017), (sym_transfer_expression, STATE 7017),
    (sym_not_operator, STATE 7969), (sym_boolean_operator, STATE 7969),
    (sym_binary_operator, STATE 7017), (sym_unary_operator, STATE 7017),
    (sym_comparison_operator, STATE 7969), (sym_lambda, STATE 7969),
    (sym_assignment, STATE 12425), (sym_augmented_assignment, STATE 12425),
    (sym_pattern_list, STATE 8578), (sym_yield, STATE 12425), (sym_attribute, STATE 6836),
    (sym_subscript, STATE 6838), (sym_call, STATE 6845), (sym_mlir_type, STATE 7017),
    (sym_list, STATE 7017), (sym_set, STATE 7017), (sym_tuple, STATE 7017),
    (sym_dictionary, STATE 7017), (sym_struct_literal, STATE 7017),
    (sym_list_comprehension, STATE 7017), (sym_dictionary_comprehension, STATE 7017),
    (sym_set_comprehension, STATE 7017), (sym_generator_expression, STATE 7017),
    (sym_parenthesized_expression, STATE 7017), (sym_conditional_expression, STATE 7969),
    (sym_concatenated_string, STATE 7017), (sym_string, STATE 6751), (sym_await, STATE 7017),
    (aux_sym_module_repeat1, STATE 925), (aux_sym_decorated_definition_repeat1, STATE 3670),
    (sym_identifier, ACTIONS 9), (anon_sym_import, ACTIONS 11), (anon_sym_from, ACTIONS 13),
    (anon_sym_LPAREN, ACTIONS 15), (anon_sym_STAR, ACTIONS 17), (anon_sym_print, ACTIONS 19),
    (anon_sym_comptime, ACTIONS 99), (anon_sym_assert, ACTIONS 23),
    (anon_sym___comptime_assert, ACTIONS 25), (anon_sym_return, ACTIONS 27),
    (anon_sym_del, ACTIONS 29), (anon_sym_raise, ACTIONS 31), (anon_sym_pass, ACTIONS 33),
    (anon_sym_break, ACTIONS 35), (anon_sym_continue, ACTIONS 37),
    (anon_sym___extension, ACTIONS 101), (anon_sym___mlir_region, ACTIONS 103),
    (anon_sym_if, ACTIONS 105), (anon_sym_match, ACTIONS 107), (anon_sym_async, ACTIONS 109),
    (anon_sym_for, ACTIONS 111), (anon_sym_while, ACTIONS 113), (anon_sym_try, ACTIONS 115),
    (anon_sym_with, ACTIONS 117), (anon_sym_def, ACTIONS 119), (anon_sym_fn, ACTIONS 119),
    (anon_sym_LBRACK, ACTIONS 59), (anon_sym_LBRACE, ACTIONS 61), (anon_sym_global, ACTIONS 63),
    (anon_sym_nonlocal, ACTIONS 65), (anon_sym_exec, ACTIONS 67), (anon_sym_type, ACTIONS 69),
    (anon_sym_class, ACTIONS 121), (anon_sym_struct, ACTIONS 121), (anon_sym_mut, ACTIONS 73),
    (anon_sym_out, ACTIONS 73), (anon_sym_trait, ACTIONS 123), (anon_sym_AT, ACTIONS 77),
    (anon_sym_DASH, ACTIONS 79), (anon_sym_PLUS, ACTIONS 79), (anon_sym_ref, ACTIONS 81),
    (anon_sym_var, ACTIONS 81), (anon_sym_not, ACTIONS 83), (anon_sym_TILDE, ACTIONS 79),
    (anon_sym_lambda, ACTIONS 85), (anon_sym_yield, ACTIONS 87), (sym_ellipsis, ACTIONS 89),
    (anon_sym___mlir_type, ACTIONS 91), (sym_integer, ACTIONS 93), (sym_float, ACTIONS 89),
    (anon_sym_await, ACTIONS 95), (sym_true, ACTIONS 93), (sym_false, ACTIONS 93),
    (sym_none, ACTIONS 93), (sym_comment, ACTIONS 3), (sym_line_continuation, ACTIONS 3),
    (sym__dedent, ACTIONS 129), (sym_string_start, ACTIONS 97)]"

definition parse_table_273 :: "(nat \<times> nat) list" where "parse_table_273 = [
    (sym__statement, STATE 925), (sym__simple_statements, STATE 925),
    (sym_import_statement, STATE 11814), (sym_future_import_statement, STATE 11814),
    (sym_import_from_statement, STATE 11814), (sym_print_statement, STATE 11814),
    (sym_assert_statement, STATE 11814), (sym_comptime_assert_statement, STATE 11814),
    (sym_expression_statement, STATE 11814), (sym_tuple_expression, STATE 12425),
    (sym_named_expression, STATE 7969), (sym__named_expression_lhs, STATE 12752),
    (sym_return_statement, STATE 11814), (sym_delete_statement, STATE 11814),
    (sym_raise_statement, STATE 11814), (sym_pass_statement, STATE 11814),
    (sym_break_statement, STATE 11814), (sym_continue_statement, STATE 11814),
    (sym_extension_definition, STATE 925), (sym_mlir_region, STATE 925),
    (sym_comptime_statement, STATE 925), (sym_if_statement, STATE 925),
    (sym_match_statement, STATE 925), (sym_for_statement, STATE 925),
    (sym_while_statement, STATE 925), (sym_try_statement, STATE 925),
    (sym_with_statement, STATE 925), (sym_function_definition, STATE 925),
    (sym_global_statement, STATE 11814), (sym_nonlocal_statement, STATE 11814),
    (sym_exec_statement, STATE 11814), (sym_type_alias_statement, STATE 11814),
    (sym_parameterized_alias_statement, STATE 11814), (sym_class_definition, STATE 925),
    (sym_trait_definition, STATE 925), (sym_decorated_definition, STATE 925),
    (sym_decorator, STATE 3670), (sym_block, STATE 5481), (sym_pattern, STATE 8086),
    (sym_tuple_pattern, STATE 8101), (sym_list_pattern, STATE 8101),
    (sym_list_splat_pattern, STATE 6819), (sym_as_pattern, STATE 7969),
    (sym_expression, STATE 9883), (sym_primary_expression, STATE 7326),
    (sym_comptime_expression, STATE 7017), (sym_transfer_expression, STATE 7017),
    (sym_not_operator, STATE 7969), (sym_boolean_operator, STATE 7969),
    (sym_binary_operator, STATE 7017), (sym_unary_operator, STATE 7017),
    (sym_comparison_operator, STATE 7969), (sym_lambda, STATE 7969),
    (sym_assignment, STATE 12425), (sym_augmented_assignment, STATE 12425),
    (sym_pattern_list, STATE 8578), (sym_yield, STATE 12425), (sym_attribute, STATE 6836),
    (sym_subscript, STATE 6838), (sym_call, STATE 6845), (sym_mlir_type, STATE 7017),
    (sym_list, STATE 7017), (sym_set, STATE 7017), (sym_tuple, STATE 7017),
    (sym_dictionary, STATE 7017), (sym_struct_literal, STATE 7017),
    (sym_list_comprehension, STATE 7017), (sym_dictionary_comprehension, STATE 7017),
    (sym_set_comprehension, STATE 7017), (sym_generator_expression, STATE 7017),
    (sym_parenthesized_expression, STATE 7017), (sym_conditional_expression, STATE 7969),
    (sym_concatenated_string, STATE 7017), (sym_string, STATE 6751), (sym_await, STATE 7017),
    (aux_sym_module_repeat1, STATE 925), (aux_sym_decorated_definition_repeat1, STATE 3670),
    (sym_identifier, ACTIONS 9), (anon_sym_import, ACTIONS 11), (anon_sym_from, ACTIONS 13),
    (anon_sym_LPAREN, ACTIONS 15), (anon_sym_STAR, ACTIONS 17), (anon_sym_print, ACTIONS 19),
    (anon_sym_comptime, ACTIONS 99), (anon_sym_assert, ACTIONS 23),
    (anon_sym___comptime_assert, ACTIONS 25), (anon_sym_return, ACTIONS 27),
    (anon_sym_del, ACTIONS 29), (anon_sym_raise, ACTIONS 31), (anon_sym_pass, ACTIONS 33),
    (anon_sym_break, ACTIONS 35), (anon_sym_continue, ACTIONS 37),
    (anon_sym___extension, ACTIONS 101), (anon_sym___mlir_region, ACTIONS 103),
    (anon_sym_if, ACTIONS 105), (anon_sym_match, ACTIONS 107), (anon_sym_async, ACTIONS 109),
    (anon_sym_for, ACTIONS 111), (anon_sym_while, ACTIONS 113), (anon_sym_try, ACTIONS 115),
    (anon_sym_with, ACTIONS 117), (anon_sym_def, ACTIONS 119), (anon_sym_fn, ACTIONS 119),
    (anon_sym_LBRACK, ACTIONS 59), (anon_sym_LBRACE, ACTIONS 61), (anon_sym_global, ACTIONS 63),
    (anon_sym_nonlocal, ACTIONS 65), (anon_sym_exec, ACTIONS 67), (anon_sym_type, ACTIONS 69),
    (anon_sym_class, ACTIONS 121), (anon_sym_struct, ACTIONS 121), (anon_sym_mut, ACTIONS 73),
    (anon_sym_out, ACTIONS 73), (anon_sym_trait, ACTIONS 123), (anon_sym_AT, ACTIONS 77),
    (anon_sym_DASH, ACTIONS 79), (anon_sym_PLUS, ACTIONS 79), (anon_sym_ref, ACTIONS 81),
    (anon_sym_var, ACTIONS 81), (anon_sym_not, ACTIONS 83), (anon_sym_TILDE, ACTIONS 79),
    (anon_sym_lambda, ACTIONS 85), (anon_sym_yield, ACTIONS 87), (sym_ellipsis, ACTIONS 89),
    (anon_sym___mlir_type, ACTIONS 91), (sym_integer, ACTIONS 93), (sym_float, ACTIONS 89),
    (anon_sym_await, ACTIONS 95), (sym_true, ACTIONS 93), (sym_false, ACTIONS 93),
    (sym_none, ACTIONS 93), (sym_comment, ACTIONS 3), (sym_line_continuation, ACTIONS 3),
    (sym__dedent, ACTIONS 129), (sym_string_start, ACTIONS 97)]"

definition parse_table_274 :: "(nat \<times> nat) list" where "parse_table_274 = [
    (sym__statement, STATE 925), (sym__simple_statements, STATE 925),
    (sym_import_statement, STATE 11814), (sym_future_import_statement, STATE 11814),
    (sym_import_from_statement, STATE 11814), (sym_print_statement, STATE 11814),
    (sym_assert_statement, STATE 11814), (sym_comptime_assert_statement, STATE 11814),
    (sym_expression_statement, STATE 11814), (sym_tuple_expression, STATE 12425),
    (sym_named_expression, STATE 7969), (sym__named_expression_lhs, STATE 12752),
    (sym_return_statement, STATE 11814), (sym_delete_statement, STATE 11814),
    (sym_raise_statement, STATE 11814), (sym_pass_statement, STATE 11814),
    (sym_break_statement, STATE 11814), (sym_continue_statement, STATE 11814),
    (sym_extension_definition, STATE 925), (sym_mlir_region, STATE 925),
    (sym_comptime_statement, STATE 925), (sym_if_statement, STATE 925),
    (sym_match_statement, STATE 925), (sym_for_statement, STATE 925),
    (sym_while_statement, STATE 925), (sym_try_statement, STATE 925),
    (sym_with_statement, STATE 925), (sym_function_definition, STATE 925),
    (sym_global_statement, STATE 11814), (sym_nonlocal_statement, STATE 11814),
    (sym_exec_statement, STATE 11814), (sym_type_alias_statement, STATE 11814),
    (sym_parameterized_alias_statement, STATE 11814), (sym_class_definition, STATE 925),
    (sym_trait_definition, STATE 925), (sym_decorated_definition, STATE 925),
    (sym_decorator, STATE 3670), (sym_block, STATE 5485), (sym_pattern, STATE 8086),
    (sym_tuple_pattern, STATE 8101), (sym_list_pattern, STATE 8101),
    (sym_list_splat_pattern, STATE 6819), (sym_as_pattern, STATE 7969),
    (sym_expression, STATE 9883), (sym_primary_expression, STATE 7326),
    (sym_comptime_expression, STATE 7017), (sym_transfer_expression, STATE 7017),
    (sym_not_operator, STATE 7969), (sym_boolean_operator, STATE 7969),
    (sym_binary_operator, STATE 7017), (sym_unary_operator, STATE 7017),
    (sym_comparison_operator, STATE 7969), (sym_lambda, STATE 7969),
    (sym_assignment, STATE 12425), (sym_augmented_assignment, STATE 12425),
    (sym_pattern_list, STATE 8578), (sym_yield, STATE 12425), (sym_attribute, STATE 6836),
    (sym_subscript, STATE 6838), (sym_call, STATE 6845), (sym_mlir_type, STATE 7017),
    (sym_list, STATE 7017), (sym_set, STATE 7017), (sym_tuple, STATE 7017),
    (sym_dictionary, STATE 7017), (sym_struct_literal, STATE 7017),
    (sym_list_comprehension, STATE 7017), (sym_dictionary_comprehension, STATE 7017),
    (sym_set_comprehension, STATE 7017), (sym_generator_expression, STATE 7017),
    (sym_parenthesized_expression, STATE 7017), (sym_conditional_expression, STATE 7969),
    (sym_concatenated_string, STATE 7017), (sym_string, STATE 6751), (sym_await, STATE 7017),
    (aux_sym_module_repeat1, STATE 925), (aux_sym_decorated_definition_repeat1, STATE 3670),
    (sym_identifier, ACTIONS 9), (anon_sym_import, ACTIONS 11), (anon_sym_from, ACTIONS 13),
    (anon_sym_LPAREN, ACTIONS 15), (anon_sym_STAR, ACTIONS 17), (anon_sym_print, ACTIONS 19),
    (anon_sym_comptime, ACTIONS 99), (anon_sym_assert, ACTIONS 23),
    (anon_sym___comptime_assert, ACTIONS 25), (anon_sym_return, ACTIONS 27),
    (anon_sym_del, ACTIONS 29), (anon_sym_raise, ACTIONS 31), (anon_sym_pass, ACTIONS 33),
    (anon_sym_break, ACTIONS 35), (anon_sym_continue, ACTIONS 37),
    (anon_sym___extension, ACTIONS 101), (anon_sym___mlir_region, ACTIONS 103),
    (anon_sym_if, ACTIONS 105), (anon_sym_match, ACTIONS 107), (anon_sym_async, ACTIONS 109),
    (anon_sym_for, ACTIONS 111), (anon_sym_while, ACTIONS 113), (anon_sym_try, ACTIONS 115),
    (anon_sym_with, ACTIONS 117), (anon_sym_def, ACTIONS 119), (anon_sym_fn, ACTIONS 119),
    (anon_sym_LBRACK, ACTIONS 59), (anon_sym_LBRACE, ACTIONS 61), (anon_sym_global, ACTIONS 63),
    (anon_sym_nonlocal, ACTIONS 65), (anon_sym_exec, ACTIONS 67), (anon_sym_type, ACTIONS 69),
    (anon_sym_class, ACTIONS 121), (anon_sym_struct, ACTIONS 121), (anon_sym_mut, ACTIONS 73),
    (anon_sym_out, ACTIONS 73), (anon_sym_trait, ACTIONS 123), (anon_sym_AT, ACTIONS 77),
    (anon_sym_DASH, ACTIONS 79), (anon_sym_PLUS, ACTIONS 79), (anon_sym_ref, ACTIONS 81),
    (anon_sym_var, ACTIONS 81), (anon_sym_not, ACTIONS 83), (anon_sym_TILDE, ACTIONS 79),
    (anon_sym_lambda, ACTIONS 85), (anon_sym_yield, ACTIONS 87), (sym_ellipsis, ACTIONS 89),
    (anon_sym___mlir_type, ACTIONS 91), (sym_integer, ACTIONS 93), (sym_float, ACTIONS 89),
    (anon_sym_await, ACTIONS 95), (sym_true, ACTIONS 93), (sym_false, ACTIONS 93),
    (sym_none, ACTIONS 93), (sym_comment, ACTIONS 3), (sym_line_continuation, ACTIONS 3),
    (sym__dedent, ACTIONS 129), (sym_string_start, ACTIONS 97)]"

definition parse_table_275 :: "(nat \<times> nat) list" where "parse_table_275 = [
    (sym__statement, STATE 925), (sym__simple_statements, STATE 925),
    (sym_import_statement, STATE 11814), (sym_future_import_statement, STATE 11814),
    (sym_import_from_statement, STATE 11814), (sym_print_statement, STATE 11814),
    (sym_assert_statement, STATE 11814), (sym_comptime_assert_statement, STATE 11814),
    (sym_expression_statement, STATE 11814), (sym_tuple_expression, STATE 12425),
    (sym_named_expression, STATE 7969), (sym__named_expression_lhs, STATE 12752),
    (sym_return_statement, STATE 11814), (sym_delete_statement, STATE 11814),
    (sym_raise_statement, STATE 11814), (sym_pass_statement, STATE 11814),
    (sym_break_statement, STATE 11814), (sym_continue_statement, STATE 11814),
    (sym_extension_definition, STATE 925), (sym_mlir_region, STATE 925),
    (sym_comptime_statement, STATE 925), (sym_if_statement, STATE 925),
    (sym_match_statement, STATE 925), (sym_for_statement, STATE 925),
    (sym_while_statement, STATE 925), (sym_try_statement, STATE 925),
    (sym_with_statement, STATE 925), (sym_function_definition, STATE 925),
    (sym_global_statement, STATE 11814), (sym_nonlocal_statement, STATE 11814),
    (sym_exec_statement, STATE 11814), (sym_type_alias_statement, STATE 11814),
    (sym_parameterized_alias_statement, STATE 11814), (sym_class_definition, STATE 925),
    (sym_trait_definition, STATE 925), (sym_decorated_definition, STATE 925),
    (sym_decorator, STATE 3670), (sym_block, STATE 5490), (sym_pattern, STATE 8086),
    (sym_tuple_pattern, STATE 8101), (sym_list_pattern, STATE 8101),
    (sym_list_splat_pattern, STATE 6819), (sym_as_pattern, STATE 7969),
    (sym_expression, STATE 9883), (sym_primary_expression, STATE 7326),
    (sym_comptime_expression, STATE 7017), (sym_transfer_expression, STATE 7017),
    (sym_not_operator, STATE 7969), (sym_boolean_operator, STATE 7969),
    (sym_binary_operator, STATE 7017), (sym_unary_operator, STATE 7017),
    (sym_comparison_operator, STATE 7969), (sym_lambda, STATE 7969),
    (sym_assignment, STATE 12425), (sym_augmented_assignment, STATE 12425),
    (sym_pattern_list, STATE 8578), (sym_yield, STATE 12425), (sym_attribute, STATE 6836),
    (sym_subscript, STATE 6838), (sym_call, STATE 6845), (sym_mlir_type, STATE 7017),
    (sym_list, STATE 7017), (sym_set, STATE 7017), (sym_tuple, STATE 7017),
    (sym_dictionary, STATE 7017), (sym_struct_literal, STATE 7017),
    (sym_list_comprehension, STATE 7017), (sym_dictionary_comprehension, STATE 7017),
    (sym_set_comprehension, STATE 7017), (sym_generator_expression, STATE 7017),
    (sym_parenthesized_expression, STATE 7017), (sym_conditional_expression, STATE 7969),
    (sym_concatenated_string, STATE 7017), (sym_string, STATE 6751), (sym_await, STATE 7017),
    (aux_sym_module_repeat1, STATE 925), (aux_sym_decorated_definition_repeat1, STATE 3670),
    (sym_identifier, ACTIONS 9), (anon_sym_import, ACTIONS 11), (anon_sym_from, ACTIONS 13),
    (anon_sym_LPAREN, ACTIONS 15), (anon_sym_STAR, ACTIONS 17), (anon_sym_print, ACTIONS 19),
    (anon_sym_comptime, ACTIONS 99), (anon_sym_assert, ACTIONS 23),
    (anon_sym___comptime_assert, ACTIONS 25), (anon_sym_return, ACTIONS 27),
    (anon_sym_del, ACTIONS 29), (anon_sym_raise, ACTIONS 31), (anon_sym_pass, ACTIONS 33),
    (anon_sym_break, ACTIONS 35), (anon_sym_continue, ACTIONS 37),
    (anon_sym___extension, ACTIONS 101), (anon_sym___mlir_region, ACTIONS 103),
    (anon_sym_if, ACTIONS 105), (anon_sym_match, ACTIONS 107), (anon_sym_async, ACTIONS 109),
    (anon_sym_for, ACTIONS 111), (anon_sym_while, ACTIONS 113), (anon_sym_try, ACTIONS 115),
    (anon_sym_with, ACTIONS 117), (anon_sym_def, ACTIONS 119), (anon_sym_fn, ACTIONS 119),
    (anon_sym_LBRACK, ACTIONS 59), (anon_sym_LBRACE, ACTIONS 61), (anon_sym_global, ACTIONS 63),
    (anon_sym_nonlocal, ACTIONS 65), (anon_sym_exec, ACTIONS 67), (anon_sym_type, ACTIONS 69),
    (anon_sym_class, ACTIONS 121), (anon_sym_struct, ACTIONS 121), (anon_sym_mut, ACTIONS 73),
    (anon_sym_out, ACTIONS 73), (anon_sym_trait, ACTIONS 123), (anon_sym_AT, ACTIONS 77),
    (anon_sym_DASH, ACTIONS 79), (anon_sym_PLUS, ACTIONS 79), (anon_sym_ref, ACTIONS 81),
    (anon_sym_var, ACTIONS 81), (anon_sym_not, ACTIONS 83), (anon_sym_TILDE, ACTIONS 79),
    (anon_sym_lambda, ACTIONS 85), (anon_sym_yield, ACTIONS 87), (sym_ellipsis, ACTIONS 89),
    (anon_sym___mlir_type, ACTIONS 91), (sym_integer, ACTIONS 93), (sym_float, ACTIONS 89),
    (anon_sym_await, ACTIONS 95), (sym_true, ACTIONS 93), (sym_false, ACTIONS 93),
    (sym_none, ACTIONS 93), (sym_comment, ACTIONS 3), (sym_line_continuation, ACTIONS 3),
    (sym__dedent, ACTIONS 129), (sym_string_start, ACTIONS 97)]"

definition parse_table_276 :: "(nat \<times> nat) list" where "parse_table_276 = [
    (sym__statement, STATE 925), (sym__simple_statements, STATE 925),
    (sym_import_statement, STATE 11814), (sym_future_import_statement, STATE 11814),
    (sym_import_from_statement, STATE 11814), (sym_print_statement, STATE 11814),
    (sym_assert_statement, STATE 11814), (sym_comptime_assert_statement, STATE 11814),
    (sym_expression_statement, STATE 11814), (sym_tuple_expression, STATE 12425),
    (sym_named_expression, STATE 7969), (sym__named_expression_lhs, STATE 12752),
    (sym_return_statement, STATE 11814), (sym_delete_statement, STATE 11814),
    (sym_raise_statement, STATE 11814), (sym_pass_statement, STATE 11814),
    (sym_break_statement, STATE 11814), (sym_continue_statement, STATE 11814),
    (sym_extension_definition, STATE 925), (sym_mlir_region, STATE 925),
    (sym_comptime_statement, STATE 925), (sym_if_statement, STATE 925),
    (sym_match_statement, STATE 925), (sym_for_statement, STATE 925),
    (sym_while_statement, STATE 925), (sym_try_statement, STATE 925),
    (sym_with_statement, STATE 925), (sym_function_definition, STATE 925),
    (sym_global_statement, STATE 11814), (sym_nonlocal_statement, STATE 11814),
    (sym_exec_statement, STATE 11814), (sym_type_alias_statement, STATE 11814),
    (sym_parameterized_alias_statement, STATE 11814), (sym_class_definition, STATE 925),
    (sym_trait_definition, STATE 925), (sym_decorated_definition, STATE 925),
    (sym_decorator, STATE 3670), (sym_block, STATE 5501), (sym_pattern, STATE 8086),
    (sym_tuple_pattern, STATE 8101), (sym_list_pattern, STATE 8101),
    (sym_list_splat_pattern, STATE 6819), (sym_as_pattern, STATE 7969),
    (sym_expression, STATE 9883), (sym_primary_expression, STATE 7326),
    (sym_comptime_expression, STATE 7017), (sym_transfer_expression, STATE 7017),
    (sym_not_operator, STATE 7969), (sym_boolean_operator, STATE 7969),
    (sym_binary_operator, STATE 7017), (sym_unary_operator, STATE 7017),
    (sym_comparison_operator, STATE 7969), (sym_lambda, STATE 7969),
    (sym_assignment, STATE 12425), (sym_augmented_assignment, STATE 12425),
    (sym_pattern_list, STATE 8578), (sym_yield, STATE 12425), (sym_attribute, STATE 6836),
    (sym_subscript, STATE 6838), (sym_call, STATE 6845), (sym_mlir_type, STATE 7017),
    (sym_list, STATE 7017), (sym_set, STATE 7017), (sym_tuple, STATE 7017),
    (sym_dictionary, STATE 7017), (sym_struct_literal, STATE 7017),
    (sym_list_comprehension, STATE 7017), (sym_dictionary_comprehension, STATE 7017),
    (sym_set_comprehension, STATE 7017), (sym_generator_expression, STATE 7017),
    (sym_parenthesized_expression, STATE 7017), (sym_conditional_expression, STATE 7969),
    (sym_concatenated_string, STATE 7017), (sym_string, STATE 6751), (sym_await, STATE 7017),
    (aux_sym_module_repeat1, STATE 925), (aux_sym_decorated_definition_repeat1, STATE 3670),
    (sym_identifier, ACTIONS 9), (anon_sym_import, ACTIONS 11), (anon_sym_from, ACTIONS 13),
    (anon_sym_LPAREN, ACTIONS 15), (anon_sym_STAR, ACTIONS 17), (anon_sym_print, ACTIONS 19),
    (anon_sym_comptime, ACTIONS 99), (anon_sym_assert, ACTIONS 23),
    (anon_sym___comptime_assert, ACTIONS 25), (anon_sym_return, ACTIONS 27),
    (anon_sym_del, ACTIONS 29), (anon_sym_raise, ACTIONS 31), (anon_sym_pass, ACTIONS 33),
    (anon_sym_break, ACTIONS 35), (anon_sym_continue, ACTIONS 37),
    (anon_sym___extension, ACTIONS 101), (anon_sym___mlir_region, ACTIONS 103),
    (anon_sym_if, ACTIONS 105), (anon_sym_match, ACTIONS 107), (anon_sym_async, ACTIONS 109),
    (anon_sym_for, ACTIONS 111), (anon_sym_while, ACTIONS 113), (anon_sym_try, ACTIONS 115),
    (anon_sym_with, ACTIONS 117), (anon_sym_def, ACTIONS 119), (anon_sym_fn, ACTIONS 119),
    (anon_sym_LBRACK, ACTIONS 59), (anon_sym_LBRACE, ACTIONS 61), (anon_sym_global, ACTIONS 63),
    (anon_sym_nonlocal, ACTIONS 65), (anon_sym_exec, ACTIONS 67), (anon_sym_type, ACTIONS 69),
    (anon_sym_class, ACTIONS 121), (anon_sym_struct, ACTIONS 121), (anon_sym_mut, ACTIONS 73),
    (anon_sym_out, ACTIONS 73), (anon_sym_trait, ACTIONS 123), (anon_sym_AT, ACTIONS 77),
    (anon_sym_DASH, ACTIONS 79), (anon_sym_PLUS, ACTIONS 79), (anon_sym_ref, ACTIONS 81),
    (anon_sym_var, ACTIONS 81), (anon_sym_not, ACTIONS 83), (anon_sym_TILDE, ACTIONS 79),
    (anon_sym_lambda, ACTIONS 85), (anon_sym_yield, ACTIONS 87), (sym_ellipsis, ACTIONS 89),
    (anon_sym___mlir_type, ACTIONS 91), (sym_integer, ACTIONS 93), (sym_float, ACTIONS 89),
    (anon_sym_await, ACTIONS 95), (sym_true, ACTIONS 93), (sym_false, ACTIONS 93),
    (sym_none, ACTIONS 93), (sym_comment, ACTIONS 3), (sym_line_continuation, ACTIONS 3),
    (sym__dedent, ACTIONS 129), (sym_string_start, ACTIONS 97)]"

definition parse_table_277 :: "(nat \<times> nat) list" where "parse_table_277 = [
    (sym__statement, STATE 925), (sym__simple_statements, STATE 925),
    (sym_import_statement, STATE 11814), (sym_future_import_statement, STATE 11814),
    (sym_import_from_statement, STATE 11814), (sym_print_statement, STATE 11814),
    (sym_assert_statement, STATE 11814), (sym_comptime_assert_statement, STATE 11814),
    (sym_expression_statement, STATE 11814), (sym_tuple_expression, STATE 12425),
    (sym_named_expression, STATE 7969), (sym__named_expression_lhs, STATE 12752),
    (sym_return_statement, STATE 11814), (sym_delete_statement, STATE 11814),
    (sym_raise_statement, STATE 11814), (sym_pass_statement, STATE 11814),
    (sym_break_statement, STATE 11814), (sym_continue_statement, STATE 11814),
    (sym_extension_definition, STATE 925), (sym_mlir_region, STATE 925),
    (sym_comptime_statement, STATE 925), (sym_if_statement, STATE 925),
    (sym_match_statement, STATE 925), (sym_for_statement, STATE 925),
    (sym_while_statement, STATE 925), (sym_try_statement, STATE 925),
    (sym_with_statement, STATE 925), (sym_function_definition, STATE 925),
    (sym_global_statement, STATE 11814), (sym_nonlocal_statement, STATE 11814),
    (sym_exec_statement, STATE 11814), (sym_type_alias_statement, STATE 11814),
    (sym_parameterized_alias_statement, STATE 11814), (sym_class_definition, STATE 925),
    (sym_trait_definition, STATE 925), (sym_decorated_definition, STATE 925),
    (sym_decorator, STATE 3670), (sym_block, STATE 5508), (sym_pattern, STATE 8086),
    (sym_tuple_pattern, STATE 8101), (sym_list_pattern, STATE 8101),
    (sym_list_splat_pattern, STATE 6819), (sym_as_pattern, STATE 7969),
    (sym_expression, STATE 9883), (sym_primary_expression, STATE 7326),
    (sym_comptime_expression, STATE 7017), (sym_transfer_expression, STATE 7017),
    (sym_not_operator, STATE 7969), (sym_boolean_operator, STATE 7969),
    (sym_binary_operator, STATE 7017), (sym_unary_operator, STATE 7017),
    (sym_comparison_operator, STATE 7969), (sym_lambda, STATE 7969),
    (sym_assignment, STATE 12425), (sym_augmented_assignment, STATE 12425),
    (sym_pattern_list, STATE 8578), (sym_yield, STATE 12425), (sym_attribute, STATE 6836),
    (sym_subscript, STATE 6838), (sym_call, STATE 6845), (sym_mlir_type, STATE 7017),
    (sym_list, STATE 7017), (sym_set, STATE 7017), (sym_tuple, STATE 7017),
    (sym_dictionary, STATE 7017), (sym_struct_literal, STATE 7017),
    (sym_list_comprehension, STATE 7017), (sym_dictionary_comprehension, STATE 7017),
    (sym_set_comprehension, STATE 7017), (sym_generator_expression, STATE 7017),
    (sym_parenthesized_expression, STATE 7017), (sym_conditional_expression, STATE 7969),
    (sym_concatenated_string, STATE 7017), (sym_string, STATE 6751), (sym_await, STATE 7017),
    (aux_sym_module_repeat1, STATE 925), (aux_sym_decorated_definition_repeat1, STATE 3670),
    (sym_identifier, ACTIONS 9), (anon_sym_import, ACTIONS 11), (anon_sym_from, ACTIONS 13),
    (anon_sym_LPAREN, ACTIONS 15), (anon_sym_STAR, ACTIONS 17), (anon_sym_print, ACTIONS 19),
    (anon_sym_comptime, ACTIONS 99), (anon_sym_assert, ACTIONS 23),
    (anon_sym___comptime_assert, ACTIONS 25), (anon_sym_return, ACTIONS 27),
    (anon_sym_del, ACTIONS 29), (anon_sym_raise, ACTIONS 31), (anon_sym_pass, ACTIONS 33),
    (anon_sym_break, ACTIONS 35), (anon_sym_continue, ACTIONS 37),
    (anon_sym___extension, ACTIONS 101), (anon_sym___mlir_region, ACTIONS 103),
    (anon_sym_if, ACTIONS 105), (anon_sym_match, ACTIONS 107), (anon_sym_async, ACTIONS 109),
    (anon_sym_for, ACTIONS 111), (anon_sym_while, ACTIONS 113), (anon_sym_try, ACTIONS 115),
    (anon_sym_with, ACTIONS 117), (anon_sym_def, ACTIONS 119), (anon_sym_fn, ACTIONS 119),
    (anon_sym_LBRACK, ACTIONS 59), (anon_sym_LBRACE, ACTIONS 61), (anon_sym_global, ACTIONS 63),
    (anon_sym_nonlocal, ACTIONS 65), (anon_sym_exec, ACTIONS 67), (anon_sym_type, ACTIONS 69),
    (anon_sym_class, ACTIONS 121), (anon_sym_struct, ACTIONS 121), (anon_sym_mut, ACTIONS 73),
    (anon_sym_out, ACTIONS 73), (anon_sym_trait, ACTIONS 123), (anon_sym_AT, ACTIONS 77),
    (anon_sym_DASH, ACTIONS 79), (anon_sym_PLUS, ACTIONS 79), (anon_sym_ref, ACTIONS 81),
    (anon_sym_var, ACTIONS 81), (anon_sym_not, ACTIONS 83), (anon_sym_TILDE, ACTIONS 79),
    (anon_sym_lambda, ACTIONS 85), (anon_sym_yield, ACTIONS 87), (sym_ellipsis, ACTIONS 89),
    (anon_sym___mlir_type, ACTIONS 91), (sym_integer, ACTIONS 93), (sym_float, ACTIONS 89),
    (anon_sym_await, ACTIONS 95), (sym_true, ACTIONS 93), (sym_false, ACTIONS 93),
    (sym_none, ACTIONS 93), (sym_comment, ACTIONS 3), (sym_line_continuation, ACTIONS 3),
    (sym__dedent, ACTIONS 129), (sym_string_start, ACTIONS 97)]"

definition parse_table_278 :: "(nat \<times> nat) list" where "parse_table_278 = [
    (sym__statement, STATE 925), (sym__simple_statements, STATE 925),
    (sym_import_statement, STATE 11814), (sym_future_import_statement, STATE 11814),
    (sym_import_from_statement, STATE 11814), (sym_print_statement, STATE 11814),
    (sym_assert_statement, STATE 11814), (sym_comptime_assert_statement, STATE 11814),
    (sym_expression_statement, STATE 11814), (sym_tuple_expression, STATE 12425),
    (sym_named_expression, STATE 7969), (sym__named_expression_lhs, STATE 12752),
    (sym_return_statement, STATE 11814), (sym_delete_statement, STATE 11814),
    (sym_raise_statement, STATE 11814), (sym_pass_statement, STATE 11814),
    (sym_break_statement, STATE 11814), (sym_continue_statement, STATE 11814),
    (sym_extension_definition, STATE 925), (sym_mlir_region, STATE 925),
    (sym_comptime_statement, STATE 925), (sym_if_statement, STATE 925),
    (sym_match_statement, STATE 925), (sym_for_statement, STATE 925),
    (sym_while_statement, STATE 925), (sym_try_statement, STATE 925),
    (sym_with_statement, STATE 925), (sym_function_definition, STATE 925),
    (sym_global_statement, STATE 11814), (sym_nonlocal_statement, STATE 11814),
    (sym_exec_statement, STATE 11814), (sym_type_alias_statement, STATE 11814),
    (sym_parameterized_alias_statement, STATE 11814), (sym_class_definition, STATE 925),
    (sym_trait_definition, STATE 925), (sym_decorated_definition, STATE 925),
    (sym_decorator, STATE 3670), (sym_block, STATE 5509), (sym_pattern, STATE 8086),
    (sym_tuple_pattern, STATE 8101), (sym_list_pattern, STATE 8101),
    (sym_list_splat_pattern, STATE 6819), (sym_as_pattern, STATE 7969),
    (sym_expression, STATE 9883), (sym_primary_expression, STATE 7326),
    (sym_comptime_expression, STATE 7017), (sym_transfer_expression, STATE 7017),
    (sym_not_operator, STATE 7969), (sym_boolean_operator, STATE 7969),
    (sym_binary_operator, STATE 7017), (sym_unary_operator, STATE 7017),
    (sym_comparison_operator, STATE 7969), (sym_lambda, STATE 7969),
    (sym_assignment, STATE 12425), (sym_augmented_assignment, STATE 12425),
    (sym_pattern_list, STATE 8578), (sym_yield, STATE 12425), (sym_attribute, STATE 6836),
    (sym_subscript, STATE 6838), (sym_call, STATE 6845), (sym_mlir_type, STATE 7017),
    (sym_list, STATE 7017), (sym_set, STATE 7017), (sym_tuple, STATE 7017),
    (sym_dictionary, STATE 7017), (sym_struct_literal, STATE 7017),
    (sym_list_comprehension, STATE 7017), (sym_dictionary_comprehension, STATE 7017),
    (sym_set_comprehension, STATE 7017), (sym_generator_expression, STATE 7017),
    (sym_parenthesized_expression, STATE 7017), (sym_conditional_expression, STATE 7969),
    (sym_concatenated_string, STATE 7017), (sym_string, STATE 6751), (sym_await, STATE 7017),
    (aux_sym_module_repeat1, STATE 925), (aux_sym_decorated_definition_repeat1, STATE 3670),
    (sym_identifier, ACTIONS 9), (anon_sym_import, ACTIONS 11), (anon_sym_from, ACTIONS 13),
    (anon_sym_LPAREN, ACTIONS 15), (anon_sym_STAR, ACTIONS 17), (anon_sym_print, ACTIONS 19),
    (anon_sym_comptime, ACTIONS 99), (anon_sym_assert, ACTIONS 23),
    (anon_sym___comptime_assert, ACTIONS 25), (anon_sym_return, ACTIONS 27),
    (anon_sym_del, ACTIONS 29), (anon_sym_raise, ACTIONS 31), (anon_sym_pass, ACTIONS 33),
    (anon_sym_break, ACTIONS 35), (anon_sym_continue, ACTIONS 37),
    (anon_sym___extension, ACTIONS 101), (anon_sym___mlir_region, ACTIONS 103),
    (anon_sym_if, ACTIONS 105), (anon_sym_match, ACTIONS 107), (anon_sym_async, ACTIONS 109),
    (anon_sym_for, ACTIONS 111), (anon_sym_while, ACTIONS 113), (anon_sym_try, ACTIONS 115),
    (anon_sym_with, ACTIONS 117), (anon_sym_def, ACTIONS 119), (anon_sym_fn, ACTIONS 119),
    (anon_sym_LBRACK, ACTIONS 59), (anon_sym_LBRACE, ACTIONS 61), (anon_sym_global, ACTIONS 63),
    (anon_sym_nonlocal, ACTIONS 65), (anon_sym_exec, ACTIONS 67), (anon_sym_type, ACTIONS 69),
    (anon_sym_class, ACTIONS 121), (anon_sym_struct, ACTIONS 121), (anon_sym_mut, ACTIONS 73),
    (anon_sym_out, ACTIONS 73), (anon_sym_trait, ACTIONS 123), (anon_sym_AT, ACTIONS 77),
    (anon_sym_DASH, ACTIONS 79), (anon_sym_PLUS, ACTIONS 79), (anon_sym_ref, ACTIONS 81),
    (anon_sym_var, ACTIONS 81), (anon_sym_not, ACTIONS 83), (anon_sym_TILDE, ACTIONS 79),
    (anon_sym_lambda, ACTIONS 85), (anon_sym_yield, ACTIONS 87), (sym_ellipsis, ACTIONS 89),
    (anon_sym___mlir_type, ACTIONS 91), (sym_integer, ACTIONS 93), (sym_float, ACTIONS 89),
    (anon_sym_await, ACTIONS 95), (sym_true, ACTIONS 93), (sym_false, ACTIONS 93),
    (sym_none, ACTIONS 93), (sym_comment, ACTIONS 3), (sym_line_continuation, ACTIONS 3),
    (sym__dedent, ACTIONS 129), (sym_string_start, ACTIONS 97)]"

definition parse_table_279 :: "(nat \<times> nat) list" where "parse_table_279 = [
    (sym__statement, STATE 925), (sym__simple_statements, STATE 925),
    (sym_import_statement, STATE 11814), (sym_future_import_statement, STATE 11814),
    (sym_import_from_statement, STATE 11814), (sym_print_statement, STATE 11814),
    (sym_assert_statement, STATE 11814), (sym_comptime_assert_statement, STATE 11814),
    (sym_expression_statement, STATE 11814), (sym_tuple_expression, STATE 12425),
    (sym_named_expression, STATE 7969), (sym__named_expression_lhs, STATE 12752),
    (sym_return_statement, STATE 11814), (sym_delete_statement, STATE 11814),
    (sym_raise_statement, STATE 11814), (sym_pass_statement, STATE 11814),
    (sym_break_statement, STATE 11814), (sym_continue_statement, STATE 11814),
    (sym_extension_definition, STATE 925), (sym_mlir_region, STATE 925),
    (sym_comptime_statement, STATE 925), (sym_if_statement, STATE 925),
    (sym_match_statement, STATE 925), (sym_for_statement, STATE 925),
    (sym_while_statement, STATE 925), (sym_try_statement, STATE 925),
    (sym_with_statement, STATE 925), (sym_function_definition, STATE 925),
    (sym_global_statement, STATE 11814), (sym_nonlocal_statement, STATE 11814),
    (sym_exec_statement, STATE 11814), (sym_type_alias_statement, STATE 11814),
    (sym_parameterized_alias_statement, STATE 11814), (sym_class_definition, STATE 925),
    (sym_trait_definition, STATE 925), (sym_decorated_definition, STATE 925),
    (sym_decorator, STATE 3670), (sym_block, STATE 5512), (sym_pattern, STATE 8086),
    (sym_tuple_pattern, STATE 8101), (sym_list_pattern, STATE 8101),
    (sym_list_splat_pattern, STATE 6819), (sym_as_pattern, STATE 7969),
    (sym_expression, STATE 9883), (sym_primary_expression, STATE 7326),
    (sym_comptime_expression, STATE 7017), (sym_transfer_expression, STATE 7017),
    (sym_not_operator, STATE 7969), (sym_boolean_operator, STATE 7969),
    (sym_binary_operator, STATE 7017), (sym_unary_operator, STATE 7017),
    (sym_comparison_operator, STATE 7969), (sym_lambda, STATE 7969),
    (sym_assignment, STATE 12425), (sym_augmented_assignment, STATE 12425),
    (sym_pattern_list, STATE 8578), (sym_yield, STATE 12425), (sym_attribute, STATE 6836),
    (sym_subscript, STATE 6838), (sym_call, STATE 6845), (sym_mlir_type, STATE 7017),
    (sym_list, STATE 7017), (sym_set, STATE 7017), (sym_tuple, STATE 7017),
    (sym_dictionary, STATE 7017), (sym_struct_literal, STATE 7017),
    (sym_list_comprehension, STATE 7017), (sym_dictionary_comprehension, STATE 7017),
    (sym_set_comprehension, STATE 7017), (sym_generator_expression, STATE 7017),
    (sym_parenthesized_expression, STATE 7017), (sym_conditional_expression, STATE 7969),
    (sym_concatenated_string, STATE 7017), (sym_string, STATE 6751), (sym_await, STATE 7017),
    (aux_sym_module_repeat1, STATE 925), (aux_sym_decorated_definition_repeat1, STATE 3670),
    (sym_identifier, ACTIONS 9), (anon_sym_import, ACTIONS 11), (anon_sym_from, ACTIONS 13),
    (anon_sym_LPAREN, ACTIONS 15), (anon_sym_STAR, ACTIONS 17), (anon_sym_print, ACTIONS 19),
    (anon_sym_comptime, ACTIONS 99), (anon_sym_assert, ACTIONS 23),
    (anon_sym___comptime_assert, ACTIONS 25), (anon_sym_return, ACTIONS 27),
    (anon_sym_del, ACTIONS 29), (anon_sym_raise, ACTIONS 31), (anon_sym_pass, ACTIONS 33),
    (anon_sym_break, ACTIONS 35), (anon_sym_continue, ACTIONS 37),
    (anon_sym___extension, ACTIONS 101), (anon_sym___mlir_region, ACTIONS 103),
    (anon_sym_if, ACTIONS 105), (anon_sym_match, ACTIONS 107), (anon_sym_async, ACTIONS 109),
    (anon_sym_for, ACTIONS 111), (anon_sym_while, ACTIONS 113), (anon_sym_try, ACTIONS 115),
    (anon_sym_with, ACTIONS 117), (anon_sym_def, ACTIONS 119), (anon_sym_fn, ACTIONS 119),
    (anon_sym_LBRACK, ACTIONS 59), (anon_sym_LBRACE, ACTIONS 61), (anon_sym_global, ACTIONS 63),
    (anon_sym_nonlocal, ACTIONS 65), (anon_sym_exec, ACTIONS 67), (anon_sym_type, ACTIONS 69),
    (anon_sym_class, ACTIONS 121), (anon_sym_struct, ACTIONS 121), (anon_sym_mut, ACTIONS 73),
    (anon_sym_out, ACTIONS 73), (anon_sym_trait, ACTIONS 123), (anon_sym_AT, ACTIONS 77),
    (anon_sym_DASH, ACTIONS 79), (anon_sym_PLUS, ACTIONS 79), (anon_sym_ref, ACTIONS 81),
    (anon_sym_var, ACTIONS 81), (anon_sym_not, ACTIONS 83), (anon_sym_TILDE, ACTIONS 79),
    (anon_sym_lambda, ACTIONS 85), (anon_sym_yield, ACTIONS 87), (sym_ellipsis, ACTIONS 89),
    (anon_sym___mlir_type, ACTIONS 91), (sym_integer, ACTIONS 93), (sym_float, ACTIONS 89),
    (anon_sym_await, ACTIONS 95), (sym_true, ACTIONS 93), (sym_false, ACTIONS 93),
    (sym_none, ACTIONS 93), (sym_comment, ACTIONS 3), (sym_line_continuation, ACTIONS 3),
    (sym__dedent, ACTIONS 129), (sym_string_start, ACTIONS 97)]"

definition parse_table_280 :: "(nat \<times> nat) list" where "parse_table_280 = [
    (sym__statement, STATE 925), (sym__simple_statements, STATE 925),
    (sym_import_statement, STATE 11814), (sym_future_import_statement, STATE 11814),
    (sym_import_from_statement, STATE 11814), (sym_print_statement, STATE 11814),
    (sym_assert_statement, STATE 11814), (sym_comptime_assert_statement, STATE 11814),
    (sym_expression_statement, STATE 11814), (sym_tuple_expression, STATE 12425),
    (sym_named_expression, STATE 7969), (sym__named_expression_lhs, STATE 12752),
    (sym_return_statement, STATE 11814), (sym_delete_statement, STATE 11814),
    (sym_raise_statement, STATE 11814), (sym_pass_statement, STATE 11814),
    (sym_break_statement, STATE 11814), (sym_continue_statement, STATE 11814),
    (sym_extension_definition, STATE 925), (sym_mlir_region, STATE 925),
    (sym_comptime_statement, STATE 925), (sym_if_statement, STATE 925),
    (sym_match_statement, STATE 925), (sym_for_statement, STATE 925),
    (sym_while_statement, STATE 925), (sym_try_statement, STATE 925),
    (sym_with_statement, STATE 925), (sym_function_definition, STATE 925),
    (sym_global_statement, STATE 11814), (sym_nonlocal_statement, STATE 11814),
    (sym_exec_statement, STATE 11814), (sym_type_alias_statement, STATE 11814),
    (sym_parameterized_alias_statement, STATE 11814), (sym_class_definition, STATE 925),
    (sym_trait_definition, STATE 925), (sym_decorated_definition, STATE 925),
    (sym_decorator, STATE 3670), (sym_block, STATE 5520), (sym_pattern, STATE 8086),
    (sym_tuple_pattern, STATE 8101), (sym_list_pattern, STATE 8101),
    (sym_list_splat_pattern, STATE 6819), (sym_as_pattern, STATE 7969),
    (sym_expression, STATE 9883), (sym_primary_expression, STATE 7326),
    (sym_comptime_expression, STATE 7017), (sym_transfer_expression, STATE 7017),
    (sym_not_operator, STATE 7969), (sym_boolean_operator, STATE 7969),
    (sym_binary_operator, STATE 7017), (sym_unary_operator, STATE 7017),
    (sym_comparison_operator, STATE 7969), (sym_lambda, STATE 7969),
    (sym_assignment, STATE 12425), (sym_augmented_assignment, STATE 12425),
    (sym_pattern_list, STATE 8578), (sym_yield, STATE 12425), (sym_attribute, STATE 6836),
    (sym_subscript, STATE 6838), (sym_call, STATE 6845), (sym_mlir_type, STATE 7017),
    (sym_list, STATE 7017), (sym_set, STATE 7017), (sym_tuple, STATE 7017),
    (sym_dictionary, STATE 7017), (sym_struct_literal, STATE 7017),
    (sym_list_comprehension, STATE 7017), (sym_dictionary_comprehension, STATE 7017),
    (sym_set_comprehension, STATE 7017), (sym_generator_expression, STATE 7017),
    (sym_parenthesized_expression, STATE 7017), (sym_conditional_expression, STATE 7969),
    (sym_concatenated_string, STATE 7017), (sym_string, STATE 6751), (sym_await, STATE 7017),
    (aux_sym_module_repeat1, STATE 925), (aux_sym_decorated_definition_repeat1, STATE 3670),
    (sym_identifier, ACTIONS 9), (anon_sym_import, ACTIONS 11), (anon_sym_from, ACTIONS 13),
    (anon_sym_LPAREN, ACTIONS 15), (anon_sym_STAR, ACTIONS 17), (anon_sym_print, ACTIONS 19),
    (anon_sym_comptime, ACTIONS 99), (anon_sym_assert, ACTIONS 23),
    (anon_sym___comptime_assert, ACTIONS 25), (anon_sym_return, ACTIONS 27),
    (anon_sym_del, ACTIONS 29), (anon_sym_raise, ACTIONS 31), (anon_sym_pass, ACTIONS 33),
    (anon_sym_break, ACTIONS 35), (anon_sym_continue, ACTIONS 37),
    (anon_sym___extension, ACTIONS 101), (anon_sym___mlir_region, ACTIONS 103),
    (anon_sym_if, ACTIONS 105), (anon_sym_match, ACTIONS 107), (anon_sym_async, ACTIONS 109),
    (anon_sym_for, ACTIONS 111), (anon_sym_while, ACTIONS 113), (anon_sym_try, ACTIONS 115),
    (anon_sym_with, ACTIONS 117), (anon_sym_def, ACTIONS 119), (anon_sym_fn, ACTIONS 119),
    (anon_sym_LBRACK, ACTIONS 59), (anon_sym_LBRACE, ACTIONS 61), (anon_sym_global, ACTIONS 63),
    (anon_sym_nonlocal, ACTIONS 65), (anon_sym_exec, ACTIONS 67), (anon_sym_type, ACTIONS 69),
    (anon_sym_class, ACTIONS 121), (anon_sym_struct, ACTIONS 121), (anon_sym_mut, ACTIONS 73),
    (anon_sym_out, ACTIONS 73), (anon_sym_trait, ACTIONS 123), (anon_sym_AT, ACTIONS 77),
    (anon_sym_DASH, ACTIONS 79), (anon_sym_PLUS, ACTIONS 79), (anon_sym_ref, ACTIONS 81),
    (anon_sym_var, ACTIONS 81), (anon_sym_not, ACTIONS 83), (anon_sym_TILDE, ACTIONS 79),
    (anon_sym_lambda, ACTIONS 85), (anon_sym_yield, ACTIONS 87), (sym_ellipsis, ACTIONS 89),
    (anon_sym___mlir_type, ACTIONS 91), (sym_integer, ACTIONS 93), (sym_float, ACTIONS 89),
    (anon_sym_await, ACTIONS 95), (sym_true, ACTIONS 93), (sym_false, ACTIONS 93),
    (sym_none, ACTIONS 93), (sym_comment, ACTIONS 3), (sym_line_continuation, ACTIONS 3),
    (sym__dedent, ACTIONS 129), (sym_string_start, ACTIONS 97)]"

definition parse_table_281 :: "(nat \<times> nat) list" where "parse_table_281 = [
    (sym__statement, STATE 925), (sym__simple_statements, STATE 925),
    (sym_import_statement, STATE 11814), (sym_future_import_statement, STATE 11814),
    (sym_import_from_statement, STATE 11814), (sym_print_statement, STATE 11814),
    (sym_assert_statement, STATE 11814), (sym_comptime_assert_statement, STATE 11814),
    (sym_expression_statement, STATE 11814), (sym_tuple_expression, STATE 12425),
    (sym_named_expression, STATE 7969), (sym__named_expression_lhs, STATE 12752),
    (sym_return_statement, STATE 11814), (sym_delete_statement, STATE 11814),
    (sym_raise_statement, STATE 11814), (sym_pass_statement, STATE 11814),
    (sym_break_statement, STATE 11814), (sym_continue_statement, STATE 11814),
    (sym_extension_definition, STATE 925), (sym_mlir_region, STATE 925),
    (sym_comptime_statement, STATE 925), (sym_if_statement, STATE 925),
    (sym_match_statement, STATE 925), (sym_for_statement, STATE 925),
    (sym_while_statement, STATE 925), (sym_try_statement, STATE 925),
    (sym_with_statement, STATE 925), (sym_function_definition, STATE 925),
    (sym_global_statement, STATE 11814), (sym_nonlocal_statement, STATE 11814),
    (sym_exec_statement, STATE 11814), (sym_type_alias_statement, STATE 11814),
    (sym_parameterized_alias_statement, STATE 11814), (sym_class_definition, STATE 925),
    (sym_trait_definition, STATE 925), (sym_decorated_definition, STATE 925),
    (sym_decorator, STATE 3670), (sym_block, STATE 5528), (sym_pattern, STATE 8086),
    (sym_tuple_pattern, STATE 8101), (sym_list_pattern, STATE 8101),
    (sym_list_splat_pattern, STATE 6819), (sym_as_pattern, STATE 7969),
    (sym_expression, STATE 9883), (sym_primary_expression, STATE 7326),
    (sym_comptime_expression, STATE 7017), (sym_transfer_expression, STATE 7017),
    (sym_not_operator, STATE 7969), (sym_boolean_operator, STATE 7969),
    (sym_binary_operator, STATE 7017), (sym_unary_operator, STATE 7017),
    (sym_comparison_operator, STATE 7969), (sym_lambda, STATE 7969),
    (sym_assignment, STATE 12425), (sym_augmented_assignment, STATE 12425),
    (sym_pattern_list, STATE 8578), (sym_yield, STATE 12425), (sym_attribute, STATE 6836),
    (sym_subscript, STATE 6838), (sym_call, STATE 6845), (sym_mlir_type, STATE 7017),
    (sym_list, STATE 7017), (sym_set, STATE 7017), (sym_tuple, STATE 7017),
    (sym_dictionary, STATE 7017), (sym_struct_literal, STATE 7017),
    (sym_list_comprehension, STATE 7017), (sym_dictionary_comprehension, STATE 7017),
    (sym_set_comprehension, STATE 7017), (sym_generator_expression, STATE 7017),
    (sym_parenthesized_expression, STATE 7017), (sym_conditional_expression, STATE 7969),
    (sym_concatenated_string, STATE 7017), (sym_string, STATE 6751), (sym_await, STATE 7017),
    (aux_sym_module_repeat1, STATE 925), (aux_sym_decorated_definition_repeat1, STATE 3670),
    (sym_identifier, ACTIONS 9), (anon_sym_import, ACTIONS 11), (anon_sym_from, ACTIONS 13),
    (anon_sym_LPAREN, ACTIONS 15), (anon_sym_STAR, ACTIONS 17), (anon_sym_print, ACTIONS 19),
    (anon_sym_comptime, ACTIONS 99), (anon_sym_assert, ACTIONS 23),
    (anon_sym___comptime_assert, ACTIONS 25), (anon_sym_return, ACTIONS 27),
    (anon_sym_del, ACTIONS 29), (anon_sym_raise, ACTIONS 31), (anon_sym_pass, ACTIONS 33),
    (anon_sym_break, ACTIONS 35), (anon_sym_continue, ACTIONS 37),
    (anon_sym___extension, ACTIONS 101), (anon_sym___mlir_region, ACTIONS 103),
    (anon_sym_if, ACTIONS 105), (anon_sym_match, ACTIONS 107), (anon_sym_async, ACTIONS 109),
    (anon_sym_for, ACTIONS 111), (anon_sym_while, ACTIONS 113), (anon_sym_try, ACTIONS 115),
    (anon_sym_with, ACTIONS 117), (anon_sym_def, ACTIONS 119), (anon_sym_fn, ACTIONS 119),
    (anon_sym_LBRACK, ACTIONS 59), (anon_sym_LBRACE, ACTIONS 61), (anon_sym_global, ACTIONS 63),
    (anon_sym_nonlocal, ACTIONS 65), (anon_sym_exec, ACTIONS 67), (anon_sym_type, ACTIONS 69),
    (anon_sym_class, ACTIONS 121), (anon_sym_struct, ACTIONS 121), (anon_sym_mut, ACTIONS 73),
    (anon_sym_out, ACTIONS 73), (anon_sym_trait, ACTIONS 123), (anon_sym_AT, ACTIONS 77),
    (anon_sym_DASH, ACTIONS 79), (anon_sym_PLUS, ACTIONS 79), (anon_sym_ref, ACTIONS 81),
    (anon_sym_var, ACTIONS 81), (anon_sym_not, ACTIONS 83), (anon_sym_TILDE, ACTIONS 79),
    (anon_sym_lambda, ACTIONS 85), (anon_sym_yield, ACTIONS 87), (sym_ellipsis, ACTIONS 89),
    (anon_sym___mlir_type, ACTIONS 91), (sym_integer, ACTIONS 93), (sym_float, ACTIONS 89),
    (anon_sym_await, ACTIONS 95), (sym_true, ACTIONS 93), (sym_false, ACTIONS 93),
    (sym_none, ACTIONS 93), (sym_comment, ACTIONS 3), (sym_line_continuation, ACTIONS 3),
    (sym__dedent, ACTIONS 129), (sym_string_start, ACTIONS 97)]"

definition parse_table_282 :: "(nat \<times> nat) list" where "parse_table_282 = [
    (sym__statement, STATE 925), (sym__simple_statements, STATE 925),
    (sym_import_statement, STATE 11814), (sym_future_import_statement, STATE 11814),
    (sym_import_from_statement, STATE 11814), (sym_print_statement, STATE 11814),
    (sym_assert_statement, STATE 11814), (sym_comptime_assert_statement, STATE 11814),
    (sym_expression_statement, STATE 11814), (sym_tuple_expression, STATE 12425),
    (sym_named_expression, STATE 7969), (sym__named_expression_lhs, STATE 12752),
    (sym_return_statement, STATE 11814), (sym_delete_statement, STATE 11814),
    (sym_raise_statement, STATE 11814), (sym_pass_statement, STATE 11814),
    (sym_break_statement, STATE 11814), (sym_continue_statement, STATE 11814),
    (sym_extension_definition, STATE 925), (sym_mlir_region, STATE 925),
    (sym_comptime_statement, STATE 925), (sym_if_statement, STATE 925),
    (sym_match_statement, STATE 925), (sym_for_statement, STATE 925),
    (sym_while_statement, STATE 925), (sym_try_statement, STATE 925),
    (sym_with_statement, STATE 925), (sym_function_definition, STATE 925),
    (sym_global_statement, STATE 11814), (sym_nonlocal_statement, STATE 11814),
    (sym_exec_statement, STATE 11814), (sym_type_alias_statement, STATE 11814),
    (sym_parameterized_alias_statement, STATE 11814), (sym_class_definition, STATE 925),
    (sym_trait_definition, STATE 925), (sym_decorated_definition, STATE 925),
    (sym_decorator, STATE 3670), (sym_block, STATE 5530), (sym_pattern, STATE 8086),
    (sym_tuple_pattern, STATE 8101), (sym_list_pattern, STATE 8101),
    (sym_list_splat_pattern, STATE 6819), (sym_as_pattern, STATE 7969),
    (sym_expression, STATE 9883), (sym_primary_expression, STATE 7326),
    (sym_comptime_expression, STATE 7017), (sym_transfer_expression, STATE 7017),
    (sym_not_operator, STATE 7969), (sym_boolean_operator, STATE 7969),
    (sym_binary_operator, STATE 7017), (sym_unary_operator, STATE 7017),
    (sym_comparison_operator, STATE 7969), (sym_lambda, STATE 7969),
    (sym_assignment, STATE 12425), (sym_augmented_assignment, STATE 12425),
    (sym_pattern_list, STATE 8578), (sym_yield, STATE 12425), (sym_attribute, STATE 6836),
    (sym_subscript, STATE 6838), (sym_call, STATE 6845), (sym_mlir_type, STATE 7017),
    (sym_list, STATE 7017), (sym_set, STATE 7017), (sym_tuple, STATE 7017),
    (sym_dictionary, STATE 7017), (sym_struct_literal, STATE 7017),
    (sym_list_comprehension, STATE 7017), (sym_dictionary_comprehension, STATE 7017),
    (sym_set_comprehension, STATE 7017), (sym_generator_expression, STATE 7017),
    (sym_parenthesized_expression, STATE 7017), (sym_conditional_expression, STATE 7969),
    (sym_concatenated_string, STATE 7017), (sym_string, STATE 6751), (sym_await, STATE 7017),
    (aux_sym_module_repeat1, STATE 925), (aux_sym_decorated_definition_repeat1, STATE 3670),
    (sym_identifier, ACTIONS 9), (anon_sym_import, ACTIONS 11), (anon_sym_from, ACTIONS 13),
    (anon_sym_LPAREN, ACTIONS 15), (anon_sym_STAR, ACTIONS 17), (anon_sym_print, ACTIONS 19),
    (anon_sym_comptime, ACTIONS 99), (anon_sym_assert, ACTIONS 23),
    (anon_sym___comptime_assert, ACTIONS 25), (anon_sym_return, ACTIONS 27),
    (anon_sym_del, ACTIONS 29), (anon_sym_raise, ACTIONS 31), (anon_sym_pass, ACTIONS 33),
    (anon_sym_break, ACTIONS 35), (anon_sym_continue, ACTIONS 37),
    (anon_sym___extension, ACTIONS 101), (anon_sym___mlir_region, ACTIONS 103),
    (anon_sym_if, ACTIONS 105), (anon_sym_match, ACTIONS 107), (anon_sym_async, ACTIONS 109),
    (anon_sym_for, ACTIONS 111), (anon_sym_while, ACTIONS 113), (anon_sym_try, ACTIONS 115),
    (anon_sym_with, ACTIONS 117), (anon_sym_def, ACTIONS 119), (anon_sym_fn, ACTIONS 119),
    (anon_sym_LBRACK, ACTIONS 59), (anon_sym_LBRACE, ACTIONS 61), (anon_sym_global, ACTIONS 63),
    (anon_sym_nonlocal, ACTIONS 65), (anon_sym_exec, ACTIONS 67), (anon_sym_type, ACTIONS 69),
    (anon_sym_class, ACTIONS 121), (anon_sym_struct, ACTIONS 121), (anon_sym_mut, ACTIONS 73),
    (anon_sym_out, ACTIONS 73), (anon_sym_trait, ACTIONS 123), (anon_sym_AT, ACTIONS 77),
    (anon_sym_DASH, ACTIONS 79), (anon_sym_PLUS, ACTIONS 79), (anon_sym_ref, ACTIONS 81),
    (anon_sym_var, ACTIONS 81), (anon_sym_not, ACTIONS 83), (anon_sym_TILDE, ACTIONS 79),
    (anon_sym_lambda, ACTIONS 85), (anon_sym_yield, ACTIONS 87), (sym_ellipsis, ACTIONS 89),
    (anon_sym___mlir_type, ACTIONS 91), (sym_integer, ACTIONS 93), (sym_float, ACTIONS 89),
    (anon_sym_await, ACTIONS 95), (sym_true, ACTIONS 93), (sym_false, ACTIONS 93),
    (sym_none, ACTIONS 93), (sym_comment, ACTIONS 3), (sym_line_continuation, ACTIONS 3),
    (sym__dedent, ACTIONS 129), (sym_string_start, ACTIONS 97)]"

definition parse_table_283 :: "(nat \<times> nat) list" where "parse_table_283 = [
    (sym__statement, STATE 925), (sym__simple_statements, STATE 925),
    (sym_import_statement, STATE 11814), (sym_future_import_statement, STATE 11814),
    (sym_import_from_statement, STATE 11814), (sym_print_statement, STATE 11814),
    (sym_assert_statement, STATE 11814), (sym_comptime_assert_statement, STATE 11814),
    (sym_expression_statement, STATE 11814), (sym_tuple_expression, STATE 12425),
    (sym_named_expression, STATE 7969), (sym__named_expression_lhs, STATE 12752),
    (sym_return_statement, STATE 11814), (sym_delete_statement, STATE 11814),
    (sym_raise_statement, STATE 11814), (sym_pass_statement, STATE 11814),
    (sym_break_statement, STATE 11814), (sym_continue_statement, STATE 11814),
    (sym_extension_definition, STATE 925), (sym_mlir_region, STATE 925),
    (sym_comptime_statement, STATE 925), (sym_if_statement, STATE 925),
    (sym_match_statement, STATE 925), (sym_for_statement, STATE 925),
    (sym_while_statement, STATE 925), (sym_try_statement, STATE 925),
    (sym_with_statement, STATE 925), (sym_function_definition, STATE 925),
    (sym_global_statement, STATE 11814), (sym_nonlocal_statement, STATE 11814),
    (sym_exec_statement, STATE 11814), (sym_type_alias_statement, STATE 11814),
    (sym_parameterized_alias_statement, STATE 11814), (sym_class_definition, STATE 925),
    (sym_trait_definition, STATE 925), (sym_decorated_definition, STATE 925),
    (sym_decorator, STATE 3670), (sym_block, STATE 5536), (sym_pattern, STATE 8086),
    (sym_tuple_pattern, STATE 8101), (sym_list_pattern, STATE 8101),
    (sym_list_splat_pattern, STATE 6819), (sym_as_pattern, STATE 7969),
    (sym_expression, STATE 9883), (sym_primary_expression, STATE 7326),
    (sym_comptime_expression, STATE 7017), (sym_transfer_expression, STATE 7017),
    (sym_not_operator, STATE 7969), (sym_boolean_operator, STATE 7969),
    (sym_binary_operator, STATE 7017), (sym_unary_operator, STATE 7017),
    (sym_comparison_operator, STATE 7969), (sym_lambda, STATE 7969),
    (sym_assignment, STATE 12425), (sym_augmented_assignment, STATE 12425),
    (sym_pattern_list, STATE 8578), (sym_yield, STATE 12425), (sym_attribute, STATE 6836),
    (sym_subscript, STATE 6838), (sym_call, STATE 6845), (sym_mlir_type, STATE 7017),
    (sym_list, STATE 7017), (sym_set, STATE 7017), (sym_tuple, STATE 7017),
    (sym_dictionary, STATE 7017), (sym_struct_literal, STATE 7017),
    (sym_list_comprehension, STATE 7017), (sym_dictionary_comprehension, STATE 7017),
    (sym_set_comprehension, STATE 7017), (sym_generator_expression, STATE 7017),
    (sym_parenthesized_expression, STATE 7017), (sym_conditional_expression, STATE 7969),
    (sym_concatenated_string, STATE 7017), (sym_string, STATE 6751), (sym_await, STATE 7017),
    (aux_sym_module_repeat1, STATE 925), (aux_sym_decorated_definition_repeat1, STATE 3670),
    (sym_identifier, ACTIONS 9), (anon_sym_import, ACTIONS 11), (anon_sym_from, ACTIONS 13),
    (anon_sym_LPAREN, ACTIONS 15), (anon_sym_STAR, ACTIONS 17), (anon_sym_print, ACTIONS 19),
    (anon_sym_comptime, ACTIONS 99), (anon_sym_assert, ACTIONS 23),
    (anon_sym___comptime_assert, ACTIONS 25), (anon_sym_return, ACTIONS 27),
    (anon_sym_del, ACTIONS 29), (anon_sym_raise, ACTIONS 31), (anon_sym_pass, ACTIONS 33),
    (anon_sym_break, ACTIONS 35), (anon_sym_continue, ACTIONS 37),
    (anon_sym___extension, ACTIONS 101), (anon_sym___mlir_region, ACTIONS 103),
    (anon_sym_if, ACTIONS 105), (anon_sym_match, ACTIONS 107), (anon_sym_async, ACTIONS 109),
    (anon_sym_for, ACTIONS 111), (anon_sym_while, ACTIONS 113), (anon_sym_try, ACTIONS 115),
    (anon_sym_with, ACTIONS 117), (anon_sym_def, ACTIONS 119), (anon_sym_fn, ACTIONS 119),
    (anon_sym_LBRACK, ACTIONS 59), (anon_sym_LBRACE, ACTIONS 61), (anon_sym_global, ACTIONS 63),
    (anon_sym_nonlocal, ACTIONS 65), (anon_sym_exec, ACTIONS 67), (anon_sym_type, ACTIONS 69),
    (anon_sym_class, ACTIONS 121), (anon_sym_struct, ACTIONS 121), (anon_sym_mut, ACTIONS 73),
    (anon_sym_out, ACTIONS 73), (anon_sym_trait, ACTIONS 123), (anon_sym_AT, ACTIONS 77),
    (anon_sym_DASH, ACTIONS 79), (anon_sym_PLUS, ACTIONS 79), (anon_sym_ref, ACTIONS 81),
    (anon_sym_var, ACTIONS 81), (anon_sym_not, ACTIONS 83), (anon_sym_TILDE, ACTIONS 79),
    (anon_sym_lambda, ACTIONS 85), (anon_sym_yield, ACTIONS 87), (sym_ellipsis, ACTIONS 89),
    (anon_sym___mlir_type, ACTIONS 91), (sym_integer, ACTIONS 93), (sym_float, ACTIONS 89),
    (anon_sym_await, ACTIONS 95), (sym_true, ACTIONS 93), (sym_false, ACTIONS 93),
    (sym_none, ACTIONS 93), (sym_comment, ACTIONS 3), (sym_line_continuation, ACTIONS 3),
    (sym__dedent, ACTIONS 129), (sym_string_start, ACTIONS 97)]"

definition parse_table_284 :: "(nat \<times> nat) list" where "parse_table_284 = [
    (sym__statement, STATE 925), (sym__simple_statements, STATE 925),
    (sym_import_statement, STATE 11814), (sym_future_import_statement, STATE 11814),
    (sym_import_from_statement, STATE 11814), (sym_print_statement, STATE 11814),
    (sym_assert_statement, STATE 11814), (sym_comptime_assert_statement, STATE 11814),
    (sym_expression_statement, STATE 11814), (sym_tuple_expression, STATE 12425),
    (sym_named_expression, STATE 7969), (sym__named_expression_lhs, STATE 12752),
    (sym_return_statement, STATE 11814), (sym_delete_statement, STATE 11814),
    (sym_raise_statement, STATE 11814), (sym_pass_statement, STATE 11814),
    (sym_break_statement, STATE 11814), (sym_continue_statement, STATE 11814),
    (sym_extension_definition, STATE 925), (sym_mlir_region, STATE 925),
    (sym_comptime_statement, STATE 925), (sym_if_statement, STATE 925),
    (sym_match_statement, STATE 925), (sym_for_statement, STATE 925),
    (sym_while_statement, STATE 925), (sym_try_statement, STATE 925),
    (sym_with_statement, STATE 925), (sym_function_definition, STATE 925),
    (sym_global_statement, STATE 11814), (sym_nonlocal_statement, STATE 11814),
    (sym_exec_statement, STATE 11814), (sym_type_alias_statement, STATE 11814),
    (sym_parameterized_alias_statement, STATE 11814), (sym_class_definition, STATE 925),
    (sym_trait_definition, STATE 925), (sym_decorated_definition, STATE 925),
    (sym_decorator, STATE 3670), (sym_block, STATE 5541), (sym_pattern, STATE 8086),
    (sym_tuple_pattern, STATE 8101), (sym_list_pattern, STATE 8101),
    (sym_list_splat_pattern, STATE 6819), (sym_as_pattern, STATE 7969),
    (sym_expression, STATE 9883), (sym_primary_expression, STATE 7326),
    (sym_comptime_expression, STATE 7017), (sym_transfer_expression, STATE 7017),
    (sym_not_operator, STATE 7969), (sym_boolean_operator, STATE 7969),
    (sym_binary_operator, STATE 7017), (sym_unary_operator, STATE 7017),
    (sym_comparison_operator, STATE 7969), (sym_lambda, STATE 7969),
    (sym_assignment, STATE 12425), (sym_augmented_assignment, STATE 12425),
    (sym_pattern_list, STATE 8578), (sym_yield, STATE 12425), (sym_attribute, STATE 6836),
    (sym_subscript, STATE 6838), (sym_call, STATE 6845), (sym_mlir_type, STATE 7017),
    (sym_list, STATE 7017), (sym_set, STATE 7017), (sym_tuple, STATE 7017),
    (sym_dictionary, STATE 7017), (sym_struct_literal, STATE 7017),
    (sym_list_comprehension, STATE 7017), (sym_dictionary_comprehension, STATE 7017),
    (sym_set_comprehension, STATE 7017), (sym_generator_expression, STATE 7017),
    (sym_parenthesized_expression, STATE 7017), (sym_conditional_expression, STATE 7969),
    (sym_concatenated_string, STATE 7017), (sym_string, STATE 6751), (sym_await, STATE 7017),
    (aux_sym_module_repeat1, STATE 925), (aux_sym_decorated_definition_repeat1, STATE 3670),
    (sym_identifier, ACTIONS 9), (anon_sym_import, ACTIONS 11), (anon_sym_from, ACTIONS 13),
    (anon_sym_LPAREN, ACTIONS 15), (anon_sym_STAR, ACTIONS 17), (anon_sym_print, ACTIONS 19),
    (anon_sym_comptime, ACTIONS 99), (anon_sym_assert, ACTIONS 23),
    (anon_sym___comptime_assert, ACTIONS 25), (anon_sym_return, ACTIONS 27),
    (anon_sym_del, ACTIONS 29), (anon_sym_raise, ACTIONS 31), (anon_sym_pass, ACTIONS 33),
    (anon_sym_break, ACTIONS 35), (anon_sym_continue, ACTIONS 37),
    (anon_sym___extension, ACTIONS 101), (anon_sym___mlir_region, ACTIONS 103),
    (anon_sym_if, ACTIONS 105), (anon_sym_match, ACTIONS 107), (anon_sym_async, ACTIONS 109),
    (anon_sym_for, ACTIONS 111), (anon_sym_while, ACTIONS 113), (anon_sym_try, ACTIONS 115),
    (anon_sym_with, ACTIONS 117), (anon_sym_def, ACTIONS 119), (anon_sym_fn, ACTIONS 119),
    (anon_sym_LBRACK, ACTIONS 59), (anon_sym_LBRACE, ACTIONS 61), (anon_sym_global, ACTIONS 63),
    (anon_sym_nonlocal, ACTIONS 65), (anon_sym_exec, ACTIONS 67), (anon_sym_type, ACTIONS 69),
    (anon_sym_class, ACTIONS 121), (anon_sym_struct, ACTIONS 121), (anon_sym_mut, ACTIONS 73),
    (anon_sym_out, ACTIONS 73), (anon_sym_trait, ACTIONS 123), (anon_sym_AT, ACTIONS 77),
    (anon_sym_DASH, ACTIONS 79), (anon_sym_PLUS, ACTIONS 79), (anon_sym_ref, ACTIONS 81),
    (anon_sym_var, ACTIONS 81), (anon_sym_not, ACTIONS 83), (anon_sym_TILDE, ACTIONS 79),
    (anon_sym_lambda, ACTIONS 85), (anon_sym_yield, ACTIONS 87), (sym_ellipsis, ACTIONS 89),
    (anon_sym___mlir_type, ACTIONS 91), (sym_integer, ACTIONS 93), (sym_float, ACTIONS 89),
    (anon_sym_await, ACTIONS 95), (sym_true, ACTIONS 93), (sym_false, ACTIONS 93),
    (sym_none, ACTIONS 93), (sym_comment, ACTIONS 3), (sym_line_continuation, ACTIONS 3),
    (sym__dedent, ACTIONS 129), (sym_string_start, ACTIONS 97)]"

definition parse_table_285 :: "(nat \<times> nat) list" where "parse_table_285 = [
    (sym__statement, STATE 925), (sym__simple_statements, STATE 925),
    (sym_import_statement, STATE 11814), (sym_future_import_statement, STATE 11814),
    (sym_import_from_statement, STATE 11814), (sym_print_statement, STATE 11814),
    (sym_assert_statement, STATE 11814), (sym_comptime_assert_statement, STATE 11814),
    (sym_expression_statement, STATE 11814), (sym_tuple_expression, STATE 12425),
    (sym_named_expression, STATE 7969), (sym__named_expression_lhs, STATE 12752),
    (sym_return_statement, STATE 11814), (sym_delete_statement, STATE 11814),
    (sym_raise_statement, STATE 11814), (sym_pass_statement, STATE 11814),
    (sym_break_statement, STATE 11814), (sym_continue_statement, STATE 11814),
    (sym_extension_definition, STATE 925), (sym_mlir_region, STATE 925),
    (sym_comptime_statement, STATE 925), (sym_if_statement, STATE 925),
    (sym_match_statement, STATE 925), (sym_for_statement, STATE 925),
    (sym_while_statement, STATE 925), (sym_try_statement, STATE 925),
    (sym_with_statement, STATE 925), (sym_function_definition, STATE 925),
    (sym_global_statement, STATE 11814), (sym_nonlocal_statement, STATE 11814),
    (sym_exec_statement, STATE 11814), (sym_type_alias_statement, STATE 11814),
    (sym_parameterized_alias_statement, STATE 11814), (sym_class_definition, STATE 925),
    (sym_trait_definition, STATE 925), (sym_decorated_definition, STATE 925),
    (sym_decorator, STATE 3670), (sym_block, STATE 5542), (sym_pattern, STATE 8086),
    (sym_tuple_pattern, STATE 8101), (sym_list_pattern, STATE 8101),
    (sym_list_splat_pattern, STATE 6819), (sym_as_pattern, STATE 7969),
    (sym_expression, STATE 9883), (sym_primary_expression, STATE 7326),
    (sym_comptime_expression, STATE 7017), (sym_transfer_expression, STATE 7017),
    (sym_not_operator, STATE 7969), (sym_boolean_operator, STATE 7969),
    (sym_binary_operator, STATE 7017), (sym_unary_operator, STATE 7017),
    (sym_comparison_operator, STATE 7969), (sym_lambda, STATE 7969),
    (sym_assignment, STATE 12425), (sym_augmented_assignment, STATE 12425),
    (sym_pattern_list, STATE 8578), (sym_yield, STATE 12425), (sym_attribute, STATE 6836),
    (sym_subscript, STATE 6838), (sym_call, STATE 6845), (sym_mlir_type, STATE 7017),
    (sym_list, STATE 7017), (sym_set, STATE 7017), (sym_tuple, STATE 7017),
    (sym_dictionary, STATE 7017), (sym_struct_literal, STATE 7017),
    (sym_list_comprehension, STATE 7017), (sym_dictionary_comprehension, STATE 7017),
    (sym_set_comprehension, STATE 7017), (sym_generator_expression, STATE 7017),
    (sym_parenthesized_expression, STATE 7017), (sym_conditional_expression, STATE 7969),
    (sym_concatenated_string, STATE 7017), (sym_string, STATE 6751), (sym_await, STATE 7017),
    (aux_sym_module_repeat1, STATE 925), (aux_sym_decorated_definition_repeat1, STATE 3670),
    (sym_identifier, ACTIONS 9), (anon_sym_import, ACTIONS 11), (anon_sym_from, ACTIONS 13),
    (anon_sym_LPAREN, ACTIONS 15), (anon_sym_STAR, ACTIONS 17), (anon_sym_print, ACTIONS 19),
    (anon_sym_comptime, ACTIONS 99), (anon_sym_assert, ACTIONS 23),
    (anon_sym___comptime_assert, ACTIONS 25), (anon_sym_return, ACTIONS 27),
    (anon_sym_del, ACTIONS 29), (anon_sym_raise, ACTIONS 31), (anon_sym_pass, ACTIONS 33),
    (anon_sym_break, ACTIONS 35), (anon_sym_continue, ACTIONS 37),
    (anon_sym___extension, ACTIONS 101), (anon_sym___mlir_region, ACTIONS 103),
    (anon_sym_if, ACTIONS 105), (anon_sym_match, ACTIONS 107), (anon_sym_async, ACTIONS 109),
    (anon_sym_for, ACTIONS 111), (anon_sym_while, ACTIONS 113), (anon_sym_try, ACTIONS 115),
    (anon_sym_with, ACTIONS 117), (anon_sym_def, ACTIONS 119), (anon_sym_fn, ACTIONS 119),
    (anon_sym_LBRACK, ACTIONS 59), (anon_sym_LBRACE, ACTIONS 61), (anon_sym_global, ACTIONS 63),
    (anon_sym_nonlocal, ACTIONS 65), (anon_sym_exec, ACTIONS 67), (anon_sym_type, ACTIONS 69),
    (anon_sym_class, ACTIONS 121), (anon_sym_struct, ACTIONS 121), (anon_sym_mut, ACTIONS 73),
    (anon_sym_out, ACTIONS 73), (anon_sym_trait, ACTIONS 123), (anon_sym_AT, ACTIONS 77),
    (anon_sym_DASH, ACTIONS 79), (anon_sym_PLUS, ACTIONS 79), (anon_sym_ref, ACTIONS 81),
    (anon_sym_var, ACTIONS 81), (anon_sym_not, ACTIONS 83), (anon_sym_TILDE, ACTIONS 79),
    (anon_sym_lambda, ACTIONS 85), (anon_sym_yield, ACTIONS 87), (sym_ellipsis, ACTIONS 89),
    (anon_sym___mlir_type, ACTIONS 91), (sym_integer, ACTIONS 93), (sym_float, ACTIONS 89),
    (anon_sym_await, ACTIONS 95), (sym_true, ACTIONS 93), (sym_false, ACTIONS 93),
    (sym_none, ACTIONS 93), (sym_comment, ACTIONS 3), (sym_line_continuation, ACTIONS 3),
    (sym__dedent, ACTIONS 129), (sym_string_start, ACTIONS 97)]"

definition parse_table_286 :: "(nat \<times> nat) list" where "parse_table_286 = [
    (sym__statement, STATE 925), (sym__simple_statements, STATE 925),
    (sym_import_statement, STATE 11814), (sym_future_import_statement, STATE 11814),
    (sym_import_from_statement, STATE 11814), (sym_print_statement, STATE 11814),
    (sym_assert_statement, STATE 11814), (sym_comptime_assert_statement, STATE 11814),
    (sym_expression_statement, STATE 11814), (sym_tuple_expression, STATE 12425),
    (sym_named_expression, STATE 7969), (sym__named_expression_lhs, STATE 12752),
    (sym_return_statement, STATE 11814), (sym_delete_statement, STATE 11814),
    (sym_raise_statement, STATE 11814), (sym_pass_statement, STATE 11814),
    (sym_break_statement, STATE 11814), (sym_continue_statement, STATE 11814),
    (sym_extension_definition, STATE 925), (sym_mlir_region, STATE 925),
    (sym_comptime_statement, STATE 925), (sym_if_statement, STATE 925),
    (sym_match_statement, STATE 925), (sym_for_statement, STATE 925),
    (sym_while_statement, STATE 925), (sym_try_statement, STATE 925),
    (sym_with_statement, STATE 925), (sym_function_definition, STATE 925),
    (sym_global_statement, STATE 11814), (sym_nonlocal_statement, STATE 11814),
    (sym_exec_statement, STATE 11814), (sym_type_alias_statement, STATE 11814),
    (sym_parameterized_alias_statement, STATE 11814), (sym_class_definition, STATE 925),
    (sym_trait_definition, STATE 925), (sym_decorated_definition, STATE 925),
    (sym_decorator, STATE 3670), (sym_block, STATE 5545), (sym_pattern, STATE 8086),
    (sym_tuple_pattern, STATE 8101), (sym_list_pattern, STATE 8101),
    (sym_list_splat_pattern, STATE 6819), (sym_as_pattern, STATE 7969),
    (sym_expression, STATE 9883), (sym_primary_expression, STATE 7326),
    (sym_comptime_expression, STATE 7017), (sym_transfer_expression, STATE 7017),
    (sym_not_operator, STATE 7969), (sym_boolean_operator, STATE 7969),
    (sym_binary_operator, STATE 7017), (sym_unary_operator, STATE 7017),
    (sym_comparison_operator, STATE 7969), (sym_lambda, STATE 7969),
    (sym_assignment, STATE 12425), (sym_augmented_assignment, STATE 12425),
    (sym_pattern_list, STATE 8578), (sym_yield, STATE 12425), (sym_attribute, STATE 6836),
    (sym_subscript, STATE 6838), (sym_call, STATE 6845), (sym_mlir_type, STATE 7017),
    (sym_list, STATE 7017), (sym_set, STATE 7017), (sym_tuple, STATE 7017),
    (sym_dictionary, STATE 7017), (sym_struct_literal, STATE 7017),
    (sym_list_comprehension, STATE 7017), (sym_dictionary_comprehension, STATE 7017),
    (sym_set_comprehension, STATE 7017), (sym_generator_expression, STATE 7017),
    (sym_parenthesized_expression, STATE 7017), (sym_conditional_expression, STATE 7969),
    (sym_concatenated_string, STATE 7017), (sym_string, STATE 6751), (sym_await, STATE 7017),
    (aux_sym_module_repeat1, STATE 925), (aux_sym_decorated_definition_repeat1, STATE 3670),
    (sym_identifier, ACTIONS 9), (anon_sym_import, ACTIONS 11), (anon_sym_from, ACTIONS 13),
    (anon_sym_LPAREN, ACTIONS 15), (anon_sym_STAR, ACTIONS 17), (anon_sym_print, ACTIONS 19),
    (anon_sym_comptime, ACTIONS 99), (anon_sym_assert, ACTIONS 23),
    (anon_sym___comptime_assert, ACTIONS 25), (anon_sym_return, ACTIONS 27),
    (anon_sym_del, ACTIONS 29), (anon_sym_raise, ACTIONS 31), (anon_sym_pass, ACTIONS 33),
    (anon_sym_break, ACTIONS 35), (anon_sym_continue, ACTIONS 37),
    (anon_sym___extension, ACTIONS 101), (anon_sym___mlir_region, ACTIONS 103),
    (anon_sym_if, ACTIONS 105), (anon_sym_match, ACTIONS 107), (anon_sym_async, ACTIONS 109),
    (anon_sym_for, ACTIONS 111), (anon_sym_while, ACTIONS 113), (anon_sym_try, ACTIONS 115),
    (anon_sym_with, ACTIONS 117), (anon_sym_def, ACTIONS 119), (anon_sym_fn, ACTIONS 119),
    (anon_sym_LBRACK, ACTIONS 59), (anon_sym_LBRACE, ACTIONS 61), (anon_sym_global, ACTIONS 63),
    (anon_sym_nonlocal, ACTIONS 65), (anon_sym_exec, ACTIONS 67), (anon_sym_type, ACTIONS 69),
    (anon_sym_class, ACTIONS 121), (anon_sym_struct, ACTIONS 121), (anon_sym_mut, ACTIONS 73),
    (anon_sym_out, ACTIONS 73), (anon_sym_trait, ACTIONS 123), (anon_sym_AT, ACTIONS 77),
    (anon_sym_DASH, ACTIONS 79), (anon_sym_PLUS, ACTIONS 79), (anon_sym_ref, ACTIONS 81),
    (anon_sym_var, ACTIONS 81), (anon_sym_not, ACTIONS 83), (anon_sym_TILDE, ACTIONS 79),
    (anon_sym_lambda, ACTIONS 85), (anon_sym_yield, ACTIONS 87), (sym_ellipsis, ACTIONS 89),
    (anon_sym___mlir_type, ACTIONS 91), (sym_integer, ACTIONS 93), (sym_float, ACTIONS 89),
    (anon_sym_await, ACTIONS 95), (sym_true, ACTIONS 93), (sym_false, ACTIONS 93),
    (sym_none, ACTIONS 93), (sym_comment, ACTIONS 3), (sym_line_continuation, ACTIONS 3),
    (sym__dedent, ACTIONS 129), (sym_string_start, ACTIONS 97)]"

definition parse_table_287 :: "(nat \<times> nat) list" where "parse_table_287 = [
    (sym__statement, STATE 925), (sym__simple_statements, STATE 925),
    (sym_import_statement, STATE 11814), (sym_future_import_statement, STATE 11814),
    (sym_import_from_statement, STATE 11814), (sym_print_statement, STATE 11814),
    (sym_assert_statement, STATE 11814), (sym_comptime_assert_statement, STATE 11814),
    (sym_expression_statement, STATE 11814), (sym_tuple_expression, STATE 12425),
    (sym_named_expression, STATE 7969), (sym__named_expression_lhs, STATE 12752),
    (sym_return_statement, STATE 11814), (sym_delete_statement, STATE 11814),
    (sym_raise_statement, STATE 11814), (sym_pass_statement, STATE 11814),
    (sym_break_statement, STATE 11814), (sym_continue_statement, STATE 11814),
    (sym_extension_definition, STATE 925), (sym_mlir_region, STATE 925),
    (sym_comptime_statement, STATE 925), (sym_if_statement, STATE 925),
    (sym_match_statement, STATE 925), (sym_for_statement, STATE 925),
    (sym_while_statement, STATE 925), (sym_try_statement, STATE 925),
    (sym_with_statement, STATE 925), (sym_function_definition, STATE 925),
    (sym_global_statement, STATE 11814), (sym_nonlocal_statement, STATE 11814),
    (sym_exec_statement, STATE 11814), (sym_type_alias_statement, STATE 11814),
    (sym_parameterized_alias_statement, STATE 11814), (sym_class_definition, STATE 925),
    (sym_trait_definition, STATE 925), (sym_decorated_definition, STATE 925),
    (sym_decorator, STATE 3670), (sym_block, STATE 5553), (sym_pattern, STATE 8086),
    (sym_tuple_pattern, STATE 8101), (sym_list_pattern, STATE 8101),
    (sym_list_splat_pattern, STATE 6819), (sym_as_pattern, STATE 7969),
    (sym_expression, STATE 9883), (sym_primary_expression, STATE 7326),
    (sym_comptime_expression, STATE 7017), (sym_transfer_expression, STATE 7017),
    (sym_not_operator, STATE 7969), (sym_boolean_operator, STATE 7969),
    (sym_binary_operator, STATE 7017), (sym_unary_operator, STATE 7017),
    (sym_comparison_operator, STATE 7969), (sym_lambda, STATE 7969),
    (sym_assignment, STATE 12425), (sym_augmented_assignment, STATE 12425),
    (sym_pattern_list, STATE 8578), (sym_yield, STATE 12425), (sym_attribute, STATE 6836),
    (sym_subscript, STATE 6838), (sym_call, STATE 6845), (sym_mlir_type, STATE 7017),
    (sym_list, STATE 7017), (sym_set, STATE 7017), (sym_tuple, STATE 7017),
    (sym_dictionary, STATE 7017), (sym_struct_literal, STATE 7017),
    (sym_list_comprehension, STATE 7017), (sym_dictionary_comprehension, STATE 7017),
    (sym_set_comprehension, STATE 7017), (sym_generator_expression, STATE 7017),
    (sym_parenthesized_expression, STATE 7017), (sym_conditional_expression, STATE 7969),
    (sym_concatenated_string, STATE 7017), (sym_string, STATE 6751), (sym_await, STATE 7017),
    (aux_sym_module_repeat1, STATE 925), (aux_sym_decorated_definition_repeat1, STATE 3670),
    (sym_identifier, ACTIONS 9), (anon_sym_import, ACTIONS 11), (anon_sym_from, ACTIONS 13),
    (anon_sym_LPAREN, ACTIONS 15), (anon_sym_STAR, ACTIONS 17), (anon_sym_print, ACTIONS 19),
    (anon_sym_comptime, ACTIONS 99), (anon_sym_assert, ACTIONS 23),
    (anon_sym___comptime_assert, ACTIONS 25), (anon_sym_return, ACTIONS 27),
    (anon_sym_del, ACTIONS 29), (anon_sym_raise, ACTIONS 31), (anon_sym_pass, ACTIONS 33),
    (anon_sym_break, ACTIONS 35), (anon_sym_continue, ACTIONS 37),
    (anon_sym___extension, ACTIONS 101), (anon_sym___mlir_region, ACTIONS 103),
    (anon_sym_if, ACTIONS 105), (anon_sym_match, ACTIONS 107), (anon_sym_async, ACTIONS 109),
    (anon_sym_for, ACTIONS 111), (anon_sym_while, ACTIONS 113), (anon_sym_try, ACTIONS 115),
    (anon_sym_with, ACTIONS 117), (anon_sym_def, ACTIONS 119), (anon_sym_fn, ACTIONS 119),
    (anon_sym_LBRACK, ACTIONS 59), (anon_sym_LBRACE, ACTIONS 61), (anon_sym_global, ACTIONS 63),
    (anon_sym_nonlocal, ACTIONS 65), (anon_sym_exec, ACTIONS 67), (anon_sym_type, ACTIONS 69),
    (anon_sym_class, ACTIONS 121), (anon_sym_struct, ACTIONS 121), (anon_sym_mut, ACTIONS 73),
    (anon_sym_out, ACTIONS 73), (anon_sym_trait, ACTIONS 123), (anon_sym_AT, ACTIONS 77),
    (anon_sym_DASH, ACTIONS 79), (anon_sym_PLUS, ACTIONS 79), (anon_sym_ref, ACTIONS 81),
    (anon_sym_var, ACTIONS 81), (anon_sym_not, ACTIONS 83), (anon_sym_TILDE, ACTIONS 79),
    (anon_sym_lambda, ACTIONS 85), (anon_sym_yield, ACTIONS 87), (sym_ellipsis, ACTIONS 89),
    (anon_sym___mlir_type, ACTIONS 91), (sym_integer, ACTIONS 93), (sym_float, ACTIONS 89),
    (anon_sym_await, ACTIONS 95), (sym_true, ACTIONS 93), (sym_false, ACTIONS 93),
    (sym_none, ACTIONS 93), (sym_comment, ACTIONS 3), (sym_line_continuation, ACTIONS 3),
    (sym__dedent, ACTIONS 129), (sym_string_start, ACTIONS 97)]"

definition parse_table_288 :: "(nat \<times> nat) list" where "parse_table_288 = [
    (sym__statement, STATE 925), (sym__simple_statements, STATE 925),
    (sym_import_statement, STATE 11814), (sym_future_import_statement, STATE 11814),
    (sym_import_from_statement, STATE 11814), (sym_print_statement, STATE 11814),
    (sym_assert_statement, STATE 11814), (sym_comptime_assert_statement, STATE 11814),
    (sym_expression_statement, STATE 11814), (sym_tuple_expression, STATE 12425),
    (sym_named_expression, STATE 7969), (sym__named_expression_lhs, STATE 12752),
    (sym_return_statement, STATE 11814), (sym_delete_statement, STATE 11814),
    (sym_raise_statement, STATE 11814), (sym_pass_statement, STATE 11814),
    (sym_break_statement, STATE 11814), (sym_continue_statement, STATE 11814),
    (sym_extension_definition, STATE 925), (sym_mlir_region, STATE 925),
    (sym_comptime_statement, STATE 925), (sym_if_statement, STATE 925),
    (sym_match_statement, STATE 925), (sym_for_statement, STATE 925),
    (sym_while_statement, STATE 925), (sym_try_statement, STATE 925),
    (sym_with_statement, STATE 925), (sym_function_definition, STATE 925),
    (sym_global_statement, STATE 11814), (sym_nonlocal_statement, STATE 11814),
    (sym_exec_statement, STATE 11814), (sym_type_alias_statement, STATE 11814),
    (sym_parameterized_alias_statement, STATE 11814), (sym_class_definition, STATE 925),
    (sym_trait_definition, STATE 925), (sym_decorated_definition, STATE 925),
    (sym_decorator, STATE 3670), (sym_block, STATE 5562), (sym_pattern, STATE 8086),
    (sym_tuple_pattern, STATE 8101), (sym_list_pattern, STATE 8101),
    (sym_list_splat_pattern, STATE 6819), (sym_as_pattern, STATE 7969),
    (sym_expression, STATE 9883), (sym_primary_expression, STATE 7326),
    (sym_comptime_expression, STATE 7017), (sym_transfer_expression, STATE 7017),
    (sym_not_operator, STATE 7969), (sym_boolean_operator, STATE 7969),
    (sym_binary_operator, STATE 7017), (sym_unary_operator, STATE 7017),
    (sym_comparison_operator, STATE 7969), (sym_lambda, STATE 7969),
    (sym_assignment, STATE 12425), (sym_augmented_assignment, STATE 12425),
    (sym_pattern_list, STATE 8578), (sym_yield, STATE 12425), (sym_attribute, STATE 6836),
    (sym_subscript, STATE 6838), (sym_call, STATE 6845), (sym_mlir_type, STATE 7017),
    (sym_list, STATE 7017), (sym_set, STATE 7017), (sym_tuple, STATE 7017),
    (sym_dictionary, STATE 7017), (sym_struct_literal, STATE 7017),
    (sym_list_comprehension, STATE 7017), (sym_dictionary_comprehension, STATE 7017),
    (sym_set_comprehension, STATE 7017), (sym_generator_expression, STATE 7017),
    (sym_parenthesized_expression, STATE 7017), (sym_conditional_expression, STATE 7969),
    (sym_concatenated_string, STATE 7017), (sym_string, STATE 6751), (sym_await, STATE 7017),
    (aux_sym_module_repeat1, STATE 925), (aux_sym_decorated_definition_repeat1, STATE 3670),
    (sym_identifier, ACTIONS 9), (anon_sym_import, ACTIONS 11), (anon_sym_from, ACTIONS 13),
    (anon_sym_LPAREN, ACTIONS 15), (anon_sym_STAR, ACTIONS 17), (anon_sym_print, ACTIONS 19),
    (anon_sym_comptime, ACTIONS 99), (anon_sym_assert, ACTIONS 23),
    (anon_sym___comptime_assert, ACTIONS 25), (anon_sym_return, ACTIONS 27),
    (anon_sym_del, ACTIONS 29), (anon_sym_raise, ACTIONS 31), (anon_sym_pass, ACTIONS 33),
    (anon_sym_break, ACTIONS 35), (anon_sym_continue, ACTIONS 37),
    (anon_sym___extension, ACTIONS 101), (anon_sym___mlir_region, ACTIONS 103),
    (anon_sym_if, ACTIONS 105), (anon_sym_match, ACTIONS 107), (anon_sym_async, ACTIONS 109),
    (anon_sym_for, ACTIONS 111), (anon_sym_while, ACTIONS 113), (anon_sym_try, ACTIONS 115),
    (anon_sym_with, ACTIONS 117), (anon_sym_def, ACTIONS 119), (anon_sym_fn, ACTIONS 119),
    (anon_sym_LBRACK, ACTIONS 59), (anon_sym_LBRACE, ACTIONS 61), (anon_sym_global, ACTIONS 63),
    (anon_sym_nonlocal, ACTIONS 65), (anon_sym_exec, ACTIONS 67), (anon_sym_type, ACTIONS 69),
    (anon_sym_class, ACTIONS 121), (anon_sym_struct, ACTIONS 121), (anon_sym_mut, ACTIONS 73),
    (anon_sym_out, ACTIONS 73), (anon_sym_trait, ACTIONS 123), (anon_sym_AT, ACTIONS 77),
    (anon_sym_DASH, ACTIONS 79), (anon_sym_PLUS, ACTIONS 79), (anon_sym_ref, ACTIONS 81),
    (anon_sym_var, ACTIONS 81), (anon_sym_not, ACTIONS 83), (anon_sym_TILDE, ACTIONS 79),
    (anon_sym_lambda, ACTIONS 85), (anon_sym_yield, ACTIONS 87), (sym_ellipsis, ACTIONS 89),
    (anon_sym___mlir_type, ACTIONS 91), (sym_integer, ACTIONS 93), (sym_float, ACTIONS 89),
    (anon_sym_await, ACTIONS 95), (sym_true, ACTIONS 93), (sym_false, ACTIONS 93),
    (sym_none, ACTIONS 93), (sym_comment, ACTIONS 3), (sym_line_continuation, ACTIONS 3),
    (sym__dedent, ACTIONS 129), (sym_string_start, ACTIONS 97)]"

definition parse_table_289 :: "(nat \<times> nat) list" where "parse_table_289 = [
    (sym__statement, STATE 925), (sym__simple_statements, STATE 925),
    (sym_import_statement, STATE 11814), (sym_future_import_statement, STATE 11814),
    (sym_import_from_statement, STATE 11814), (sym_print_statement, STATE 11814),
    (sym_assert_statement, STATE 11814), (sym_comptime_assert_statement, STATE 11814),
    (sym_expression_statement, STATE 11814), (sym_tuple_expression, STATE 12425),
    (sym_named_expression, STATE 7969), (sym__named_expression_lhs, STATE 12752),
    (sym_return_statement, STATE 11814), (sym_delete_statement, STATE 11814),
    (sym_raise_statement, STATE 11814), (sym_pass_statement, STATE 11814),
    (sym_break_statement, STATE 11814), (sym_continue_statement, STATE 11814),
    (sym_extension_definition, STATE 925), (sym_mlir_region, STATE 925),
    (sym_comptime_statement, STATE 925), (sym_if_statement, STATE 925),
    (sym_match_statement, STATE 925), (sym_for_statement, STATE 925),
    (sym_while_statement, STATE 925), (sym_try_statement, STATE 925),
    (sym_with_statement, STATE 925), (sym_function_definition, STATE 925),
    (sym_global_statement, STATE 11814), (sym_nonlocal_statement, STATE 11814),
    (sym_exec_statement, STATE 11814), (sym_type_alias_statement, STATE 11814),
    (sym_parameterized_alias_statement, STATE 11814), (sym_class_definition, STATE 925),
    (sym_trait_definition, STATE 925), (sym_decorated_definition, STATE 925),
    (sym_decorator, STATE 3670), (sym_block, STATE 5564), (sym_pattern, STATE 8086),
    (sym_tuple_pattern, STATE 8101), (sym_list_pattern, STATE 8101),
    (sym_list_splat_pattern, STATE 6819), (sym_as_pattern, STATE 7969),
    (sym_expression, STATE 9883), (sym_primary_expression, STATE 7326),
    (sym_comptime_expression, STATE 7017), (sym_transfer_expression, STATE 7017),
    (sym_not_operator, STATE 7969), (sym_boolean_operator, STATE 7969),
    (sym_binary_operator, STATE 7017), (sym_unary_operator, STATE 7017),
    (sym_comparison_operator, STATE 7969), (sym_lambda, STATE 7969),
    (sym_assignment, STATE 12425), (sym_augmented_assignment, STATE 12425),
    (sym_pattern_list, STATE 8578), (sym_yield, STATE 12425), (sym_attribute, STATE 6836),
    (sym_subscript, STATE 6838), (sym_call, STATE 6845), (sym_mlir_type, STATE 7017),
    (sym_list, STATE 7017), (sym_set, STATE 7017), (sym_tuple, STATE 7017),
    (sym_dictionary, STATE 7017), (sym_struct_literal, STATE 7017),
    (sym_list_comprehension, STATE 7017), (sym_dictionary_comprehension, STATE 7017),
    (sym_set_comprehension, STATE 7017), (sym_generator_expression, STATE 7017),
    (sym_parenthesized_expression, STATE 7017), (sym_conditional_expression, STATE 7969),
    (sym_concatenated_string, STATE 7017), (sym_string, STATE 6751), (sym_await, STATE 7017),
    (aux_sym_module_repeat1, STATE 925), (aux_sym_decorated_definition_repeat1, STATE 3670),
    (sym_identifier, ACTIONS 9), (anon_sym_import, ACTIONS 11), (anon_sym_from, ACTIONS 13),
    (anon_sym_LPAREN, ACTIONS 15), (anon_sym_STAR, ACTIONS 17), (anon_sym_print, ACTIONS 19),
    (anon_sym_comptime, ACTIONS 99), (anon_sym_assert, ACTIONS 23),
    (anon_sym___comptime_assert, ACTIONS 25), (anon_sym_return, ACTIONS 27),
    (anon_sym_del, ACTIONS 29), (anon_sym_raise, ACTIONS 31), (anon_sym_pass, ACTIONS 33),
    (anon_sym_break, ACTIONS 35), (anon_sym_continue, ACTIONS 37),
    (anon_sym___extension, ACTIONS 101), (anon_sym___mlir_region, ACTIONS 103),
    (anon_sym_if, ACTIONS 105), (anon_sym_match, ACTIONS 107), (anon_sym_async, ACTIONS 109),
    (anon_sym_for, ACTIONS 111), (anon_sym_while, ACTIONS 113), (anon_sym_try, ACTIONS 115),
    (anon_sym_with, ACTIONS 117), (anon_sym_def, ACTIONS 119), (anon_sym_fn, ACTIONS 119),
    (anon_sym_LBRACK, ACTIONS 59), (anon_sym_LBRACE, ACTIONS 61), (anon_sym_global, ACTIONS 63),
    (anon_sym_nonlocal, ACTIONS 65), (anon_sym_exec, ACTIONS 67), (anon_sym_type, ACTIONS 69),
    (anon_sym_class, ACTIONS 121), (anon_sym_struct, ACTIONS 121), (anon_sym_mut, ACTIONS 73),
    (anon_sym_out, ACTIONS 73), (anon_sym_trait, ACTIONS 123), (anon_sym_AT, ACTIONS 77),
    (anon_sym_DASH, ACTIONS 79), (anon_sym_PLUS, ACTIONS 79), (anon_sym_ref, ACTIONS 81),
    (anon_sym_var, ACTIONS 81), (anon_sym_not, ACTIONS 83), (anon_sym_TILDE, ACTIONS 79),
    (anon_sym_lambda, ACTIONS 85), (anon_sym_yield, ACTIONS 87), (sym_ellipsis, ACTIONS 89),
    (anon_sym___mlir_type, ACTIONS 91), (sym_integer, ACTIONS 93), (sym_float, ACTIONS 89),
    (anon_sym_await, ACTIONS 95), (sym_true, ACTIONS 93), (sym_false, ACTIONS 93),
    (sym_none, ACTIONS 93), (sym_comment, ACTIONS 3), (sym_line_continuation, ACTIONS 3),
    (sym__dedent, ACTIONS 129), (sym_string_start, ACTIONS 97)]"

definition parse_table_290 :: "(nat \<times> nat) list" where "parse_table_290 = [
    (sym__statement, STATE 925), (sym__simple_statements, STATE 925),
    (sym_import_statement, STATE 11814), (sym_future_import_statement, STATE 11814),
    (sym_import_from_statement, STATE 11814), (sym_print_statement, STATE 11814),
    (sym_assert_statement, STATE 11814), (sym_comptime_assert_statement, STATE 11814),
    (sym_expression_statement, STATE 11814), (sym_tuple_expression, STATE 12425),
    (sym_named_expression, STATE 7969), (sym__named_expression_lhs, STATE 12752),
    (sym_return_statement, STATE 11814), (sym_delete_statement, STATE 11814),
    (sym_raise_statement, STATE 11814), (sym_pass_statement, STATE 11814),
    (sym_break_statement, STATE 11814), (sym_continue_statement, STATE 11814),
    (sym_extension_definition, STATE 925), (sym_mlir_region, STATE 925),
    (sym_comptime_statement, STATE 925), (sym_if_statement, STATE 925),
    (sym_match_statement, STATE 925), (sym_for_statement, STATE 925),
    (sym_while_statement, STATE 925), (sym_try_statement, STATE 925),
    (sym_with_statement, STATE 925), (sym_function_definition, STATE 925),
    (sym_global_statement, STATE 11814), (sym_nonlocal_statement, STATE 11814),
    (sym_exec_statement, STATE 11814), (sym_type_alias_statement, STATE 11814),
    (sym_parameterized_alias_statement, STATE 11814), (sym_class_definition, STATE 925),
    (sym_trait_definition, STATE 925), (sym_decorated_definition, STATE 925),
    (sym_decorator, STATE 3670), (sym_block, STATE 5569), (sym_pattern, STATE 8086),
    (sym_tuple_pattern, STATE 8101), (sym_list_pattern, STATE 8101),
    (sym_list_splat_pattern, STATE 6819), (sym_as_pattern, STATE 7969),
    (sym_expression, STATE 9883), (sym_primary_expression, STATE 7326),
    (sym_comptime_expression, STATE 7017), (sym_transfer_expression, STATE 7017),
    (sym_not_operator, STATE 7969), (sym_boolean_operator, STATE 7969),
    (sym_binary_operator, STATE 7017), (sym_unary_operator, STATE 7017),
    (sym_comparison_operator, STATE 7969), (sym_lambda, STATE 7969),
    (sym_assignment, STATE 12425), (sym_augmented_assignment, STATE 12425),
    (sym_pattern_list, STATE 8578), (sym_yield, STATE 12425), (sym_attribute, STATE 6836),
    (sym_subscript, STATE 6838), (sym_call, STATE 6845), (sym_mlir_type, STATE 7017),
    (sym_list, STATE 7017), (sym_set, STATE 7017), (sym_tuple, STATE 7017),
    (sym_dictionary, STATE 7017), (sym_struct_literal, STATE 7017),
    (sym_list_comprehension, STATE 7017), (sym_dictionary_comprehension, STATE 7017),
    (sym_set_comprehension, STATE 7017), (sym_generator_expression, STATE 7017),
    (sym_parenthesized_expression, STATE 7017), (sym_conditional_expression, STATE 7969),
    (sym_concatenated_string, STATE 7017), (sym_string, STATE 6751), (sym_await, STATE 7017),
    (aux_sym_module_repeat1, STATE 925), (aux_sym_decorated_definition_repeat1, STATE 3670),
    (sym_identifier, ACTIONS 9), (anon_sym_import, ACTIONS 11), (anon_sym_from, ACTIONS 13),
    (anon_sym_LPAREN, ACTIONS 15), (anon_sym_STAR, ACTIONS 17), (anon_sym_print, ACTIONS 19),
    (anon_sym_comptime, ACTIONS 99), (anon_sym_assert, ACTIONS 23),
    (anon_sym___comptime_assert, ACTIONS 25), (anon_sym_return, ACTIONS 27),
    (anon_sym_del, ACTIONS 29), (anon_sym_raise, ACTIONS 31), (anon_sym_pass, ACTIONS 33),
    (anon_sym_break, ACTIONS 35), (anon_sym_continue, ACTIONS 37),
    (anon_sym___extension, ACTIONS 101), (anon_sym___mlir_region, ACTIONS 103),
    (anon_sym_if, ACTIONS 105), (anon_sym_match, ACTIONS 107), (anon_sym_async, ACTIONS 109),
    (anon_sym_for, ACTIONS 111), (anon_sym_while, ACTIONS 113), (anon_sym_try, ACTIONS 115),
    (anon_sym_with, ACTIONS 117), (anon_sym_def, ACTIONS 119), (anon_sym_fn, ACTIONS 119),
    (anon_sym_LBRACK, ACTIONS 59), (anon_sym_LBRACE, ACTIONS 61), (anon_sym_global, ACTIONS 63),
    (anon_sym_nonlocal, ACTIONS 65), (anon_sym_exec, ACTIONS 67), (anon_sym_type, ACTIONS 69),
    (anon_sym_class, ACTIONS 121), (anon_sym_struct, ACTIONS 121), (anon_sym_mut, ACTIONS 73),
    (anon_sym_out, ACTIONS 73), (anon_sym_trait, ACTIONS 123), (anon_sym_AT, ACTIONS 77),
    (anon_sym_DASH, ACTIONS 79), (anon_sym_PLUS, ACTIONS 79), (anon_sym_ref, ACTIONS 81),
    (anon_sym_var, ACTIONS 81), (anon_sym_not, ACTIONS 83), (anon_sym_TILDE, ACTIONS 79),
    (anon_sym_lambda, ACTIONS 85), (anon_sym_yield, ACTIONS 87), (sym_ellipsis, ACTIONS 89),
    (anon_sym___mlir_type, ACTIONS 91), (sym_integer, ACTIONS 93), (sym_float, ACTIONS 89),
    (anon_sym_await, ACTIONS 95), (sym_true, ACTIONS 93), (sym_false, ACTIONS 93),
    (sym_none, ACTIONS 93), (sym_comment, ACTIONS 3), (sym_line_continuation, ACTIONS 3),
    (sym__dedent, ACTIONS 129), (sym_string_start, ACTIONS 97)]"

definition parse_table_291 :: "(nat \<times> nat) list" where "parse_table_291 = [
    (sym__statement, STATE 925), (sym__simple_statements, STATE 925),
    (sym_import_statement, STATE 11814), (sym_future_import_statement, STATE 11814),
    (sym_import_from_statement, STATE 11814), (sym_print_statement, STATE 11814),
    (sym_assert_statement, STATE 11814), (sym_comptime_assert_statement, STATE 11814),
    (sym_expression_statement, STATE 11814), (sym_tuple_expression, STATE 12425),
    (sym_named_expression, STATE 7969), (sym__named_expression_lhs, STATE 12752),
    (sym_return_statement, STATE 11814), (sym_delete_statement, STATE 11814),
    (sym_raise_statement, STATE 11814), (sym_pass_statement, STATE 11814),
    (sym_break_statement, STATE 11814), (sym_continue_statement, STATE 11814),
    (sym_extension_definition, STATE 925), (sym_mlir_region, STATE 925),
    (sym_comptime_statement, STATE 925), (sym_if_statement, STATE 925),
    (sym_match_statement, STATE 925), (sym_for_statement, STATE 925),
    (sym_while_statement, STATE 925), (sym_try_statement, STATE 925),
    (sym_with_statement, STATE 925), (sym_function_definition, STATE 925),
    (sym_global_statement, STATE 11814), (sym_nonlocal_statement, STATE 11814),
    (sym_exec_statement, STATE 11814), (sym_type_alias_statement, STATE 11814),
    (sym_parameterized_alias_statement, STATE 11814), (sym_class_definition, STATE 925),
    (sym_trait_definition, STATE 925), (sym_decorated_definition, STATE 925),
    (sym_decorator, STATE 3670), (sym_block, STATE 5582), (sym_pattern, STATE 8086),
    (sym_tuple_pattern, STATE 8101), (sym_list_pattern, STATE 8101),
    (sym_list_splat_pattern, STATE 6819), (sym_as_pattern, STATE 7969),
    (sym_expression, STATE 9883), (sym_primary_expression, STATE 7326),
    (sym_comptime_expression, STATE 7017), (sym_transfer_expression, STATE 7017),
    (sym_not_operator, STATE 7969), (sym_boolean_operator, STATE 7969),
    (sym_binary_operator, STATE 7017), (sym_unary_operator, STATE 7017),
    (sym_comparison_operator, STATE 7969), (sym_lambda, STATE 7969),
    (sym_assignment, STATE 12425), (sym_augmented_assignment, STATE 12425),
    (sym_pattern_list, STATE 8578), (sym_yield, STATE 12425), (sym_attribute, STATE 6836),
    (sym_subscript, STATE 6838), (sym_call, STATE 6845), (sym_mlir_type, STATE 7017),
    (sym_list, STATE 7017), (sym_set, STATE 7017), (sym_tuple, STATE 7017),
    (sym_dictionary, STATE 7017), (sym_struct_literal, STATE 7017),
    (sym_list_comprehension, STATE 7017), (sym_dictionary_comprehension, STATE 7017),
    (sym_set_comprehension, STATE 7017), (sym_generator_expression, STATE 7017),
    (sym_parenthesized_expression, STATE 7017), (sym_conditional_expression, STATE 7969),
    (sym_concatenated_string, STATE 7017), (sym_string, STATE 6751), (sym_await, STATE 7017),
    (aux_sym_module_repeat1, STATE 925), (aux_sym_decorated_definition_repeat1, STATE 3670),
    (sym_identifier, ACTIONS 9), (anon_sym_import, ACTIONS 11), (anon_sym_from, ACTIONS 13),
    (anon_sym_LPAREN, ACTIONS 15), (anon_sym_STAR, ACTIONS 17), (anon_sym_print, ACTIONS 19),
    (anon_sym_comptime, ACTIONS 99), (anon_sym_assert, ACTIONS 23),
    (anon_sym___comptime_assert, ACTIONS 25), (anon_sym_return, ACTIONS 27),
    (anon_sym_del, ACTIONS 29), (anon_sym_raise, ACTIONS 31), (anon_sym_pass, ACTIONS 33),
    (anon_sym_break, ACTIONS 35), (anon_sym_continue, ACTIONS 37),
    (anon_sym___extension, ACTIONS 101), (anon_sym___mlir_region, ACTIONS 103),
    (anon_sym_if, ACTIONS 105), (anon_sym_match, ACTIONS 107), (anon_sym_async, ACTIONS 109),
    (anon_sym_for, ACTIONS 111), (anon_sym_while, ACTIONS 113), (anon_sym_try, ACTIONS 115),
    (anon_sym_with, ACTIONS 117), (anon_sym_def, ACTIONS 119), (anon_sym_fn, ACTIONS 119),
    (anon_sym_LBRACK, ACTIONS 59), (anon_sym_LBRACE, ACTIONS 61), (anon_sym_global, ACTIONS 63),
    (anon_sym_nonlocal, ACTIONS 65), (anon_sym_exec, ACTIONS 67), (anon_sym_type, ACTIONS 69),
    (anon_sym_class, ACTIONS 121), (anon_sym_struct, ACTIONS 121), (anon_sym_mut, ACTIONS 73),
    (anon_sym_out, ACTIONS 73), (anon_sym_trait, ACTIONS 123), (anon_sym_AT, ACTIONS 77),
    (anon_sym_DASH, ACTIONS 79), (anon_sym_PLUS, ACTIONS 79), (anon_sym_ref, ACTIONS 81),
    (anon_sym_var, ACTIONS 81), (anon_sym_not, ACTIONS 83), (anon_sym_TILDE, ACTIONS 79),
    (anon_sym_lambda, ACTIONS 85), (anon_sym_yield, ACTIONS 87), (sym_ellipsis, ACTIONS 89),
    (anon_sym___mlir_type, ACTIONS 91), (sym_integer, ACTIONS 93), (sym_float, ACTIONS 89),
    (anon_sym_await, ACTIONS 95), (sym_true, ACTIONS 93), (sym_false, ACTIONS 93),
    (sym_none, ACTIONS 93), (sym_comment, ACTIONS 3), (sym_line_continuation, ACTIONS 3),
    (sym__dedent, ACTIONS 129), (sym_string_start, ACTIONS 97)]"

definition parse_table_292 :: "(nat \<times> nat) list" where "parse_table_292 = [
    (sym__statement, STATE 925), (sym__simple_statements, STATE 925),
    (sym_import_statement, STATE 11814), (sym_future_import_statement, STATE 11814),
    (sym_import_from_statement, STATE 11814), (sym_print_statement, STATE 11814),
    (sym_assert_statement, STATE 11814), (sym_comptime_assert_statement, STATE 11814),
    (sym_expression_statement, STATE 11814), (sym_tuple_expression, STATE 12425),
    (sym_named_expression, STATE 7969), (sym__named_expression_lhs, STATE 12752),
    (sym_return_statement, STATE 11814), (sym_delete_statement, STATE 11814),
    (sym_raise_statement, STATE 11814), (sym_pass_statement, STATE 11814),
    (sym_break_statement, STATE 11814), (sym_continue_statement, STATE 11814),
    (sym_extension_definition, STATE 925), (sym_mlir_region, STATE 925),
    (sym_comptime_statement, STATE 925), (sym_if_statement, STATE 925),
    (sym_match_statement, STATE 925), (sym_for_statement, STATE 925),
    (sym_while_statement, STATE 925), (sym_try_statement, STATE 925),
    (sym_with_statement, STATE 925), (sym_function_definition, STATE 925),
    (sym_global_statement, STATE 11814), (sym_nonlocal_statement, STATE 11814),
    (sym_exec_statement, STATE 11814), (sym_type_alias_statement, STATE 11814),
    (sym_parameterized_alias_statement, STATE 11814), (sym_class_definition, STATE 925),
    (sym_trait_definition, STATE 925), (sym_decorated_definition, STATE 925),
    (sym_decorator, STATE 3670), (sym_block, STATE 5606), (sym_pattern, STATE 8086),
    (sym_tuple_pattern, STATE 8101), (sym_list_pattern, STATE 8101),
    (sym_list_splat_pattern, STATE 6819), (sym_as_pattern, STATE 7969),
    (sym_expression, STATE 9883), (sym_primary_expression, STATE 7326),
    (sym_comptime_expression, STATE 7017), (sym_transfer_expression, STATE 7017),
    (sym_not_operator, STATE 7969), (sym_boolean_operator, STATE 7969),
    (sym_binary_operator, STATE 7017), (sym_unary_operator, STATE 7017),
    (sym_comparison_operator, STATE 7969), (sym_lambda, STATE 7969),
    (sym_assignment, STATE 12425), (sym_augmented_assignment, STATE 12425),
    (sym_pattern_list, STATE 8578), (sym_yield, STATE 12425), (sym_attribute, STATE 6836),
    (sym_subscript, STATE 6838), (sym_call, STATE 6845), (sym_mlir_type, STATE 7017),
    (sym_list, STATE 7017), (sym_set, STATE 7017), (sym_tuple, STATE 7017),
    (sym_dictionary, STATE 7017), (sym_struct_literal, STATE 7017),
    (sym_list_comprehension, STATE 7017), (sym_dictionary_comprehension, STATE 7017),
    (sym_set_comprehension, STATE 7017), (sym_generator_expression, STATE 7017),
    (sym_parenthesized_expression, STATE 7017), (sym_conditional_expression, STATE 7969),
    (sym_concatenated_string, STATE 7017), (sym_string, STATE 6751), (sym_await, STATE 7017),
    (aux_sym_module_repeat1, STATE 925), (aux_sym_decorated_definition_repeat1, STATE 3670),
    (sym_identifier, ACTIONS 9), (anon_sym_import, ACTIONS 11), (anon_sym_from, ACTIONS 13),
    (anon_sym_LPAREN, ACTIONS 15), (anon_sym_STAR, ACTIONS 17), (anon_sym_print, ACTIONS 19),
    (anon_sym_comptime, ACTIONS 99), (anon_sym_assert, ACTIONS 23),
    (anon_sym___comptime_assert, ACTIONS 25), (anon_sym_return, ACTIONS 27),
    (anon_sym_del, ACTIONS 29), (anon_sym_raise, ACTIONS 31), (anon_sym_pass, ACTIONS 33),
    (anon_sym_break, ACTIONS 35), (anon_sym_continue, ACTIONS 37),
    (anon_sym___extension, ACTIONS 101), (anon_sym___mlir_region, ACTIONS 103),
    (anon_sym_if, ACTIONS 105), (anon_sym_match, ACTIONS 107), (anon_sym_async, ACTIONS 109),
    (anon_sym_for, ACTIONS 111), (anon_sym_while, ACTIONS 113), (anon_sym_try, ACTIONS 115),
    (anon_sym_with, ACTIONS 117), (anon_sym_def, ACTIONS 119), (anon_sym_fn, ACTIONS 119),
    (anon_sym_LBRACK, ACTIONS 59), (anon_sym_LBRACE, ACTIONS 61), (anon_sym_global, ACTIONS 63),
    (anon_sym_nonlocal, ACTIONS 65), (anon_sym_exec, ACTIONS 67), (anon_sym_type, ACTIONS 69),
    (anon_sym_class, ACTIONS 121), (anon_sym_struct, ACTIONS 121), (anon_sym_mut, ACTIONS 73),
    (anon_sym_out, ACTIONS 73), (anon_sym_trait, ACTIONS 123), (anon_sym_AT, ACTIONS 77),
    (anon_sym_DASH, ACTIONS 79), (anon_sym_PLUS, ACTIONS 79), (anon_sym_ref, ACTIONS 81),
    (anon_sym_var, ACTIONS 81), (anon_sym_not, ACTIONS 83), (anon_sym_TILDE, ACTIONS 79),
    (anon_sym_lambda, ACTIONS 85), (anon_sym_yield, ACTIONS 87), (sym_ellipsis, ACTIONS 89),
    (anon_sym___mlir_type, ACTIONS 91), (sym_integer, ACTIONS 93), (sym_float, ACTIONS 89),
    (anon_sym_await, ACTIONS 95), (sym_true, ACTIONS 93), (sym_false, ACTIONS 93),
    (sym_none, ACTIONS 93), (sym_comment, ACTIONS 3), (sym_line_continuation, ACTIONS 3),
    (sym__dedent, ACTIONS 129), (sym_string_start, ACTIONS 97)]"

definition parse_table_293 :: "(nat \<times> nat) list" where "parse_table_293 = [
    (sym__statement, STATE 925), (sym__simple_statements, STATE 925),
    (sym_import_statement, STATE 11814), (sym_future_import_statement, STATE 11814),
    (sym_import_from_statement, STATE 11814), (sym_print_statement, STATE 11814),
    (sym_assert_statement, STATE 11814), (sym_comptime_assert_statement, STATE 11814),
    (sym_expression_statement, STATE 11814), (sym_tuple_expression, STATE 12425),
    (sym_named_expression, STATE 7969), (sym__named_expression_lhs, STATE 12752),
    (sym_return_statement, STATE 11814), (sym_delete_statement, STATE 11814),
    (sym_raise_statement, STATE 11814), (sym_pass_statement, STATE 11814),
    (sym_break_statement, STATE 11814), (sym_continue_statement, STATE 11814),
    (sym_extension_definition, STATE 925), (sym_mlir_region, STATE 925),
    (sym_comptime_statement, STATE 925), (sym_if_statement, STATE 925),
    (sym_match_statement, STATE 925), (sym_for_statement, STATE 925),
    (sym_while_statement, STATE 925), (sym_try_statement, STATE 925),
    (sym_with_statement, STATE 925), (sym_function_definition, STATE 925),
    (sym_global_statement, STATE 11814), (sym_nonlocal_statement, STATE 11814),
    (sym_exec_statement, STATE 11814), (sym_type_alias_statement, STATE 11814),
    (sym_parameterized_alias_statement, STATE 11814), (sym_class_definition, STATE 925),
    (sym_trait_definition, STATE 925), (sym_decorated_definition, STATE 925),
    (sym_decorator, STATE 3670), (sym_block, STATE 5623), (sym_pattern, STATE 8086),
    (sym_tuple_pattern, STATE 8101), (sym_list_pattern, STATE 8101),
    (sym_list_splat_pattern, STATE 6819), (sym_as_pattern, STATE 7969),
    (sym_expression, STATE 9883), (sym_primary_expression, STATE 7326),
    (sym_comptime_expression, STATE 7017), (sym_transfer_expression, STATE 7017),
    (sym_not_operator, STATE 7969), (sym_boolean_operator, STATE 7969),
    (sym_binary_operator, STATE 7017), (sym_unary_operator, STATE 7017),
    (sym_comparison_operator, STATE 7969), (sym_lambda, STATE 7969),
    (sym_assignment, STATE 12425), (sym_augmented_assignment, STATE 12425),
    (sym_pattern_list, STATE 8578), (sym_yield, STATE 12425), (sym_attribute, STATE 6836),
    (sym_subscript, STATE 6838), (sym_call, STATE 6845), (sym_mlir_type, STATE 7017),
    (sym_list, STATE 7017), (sym_set, STATE 7017), (sym_tuple, STATE 7017),
    (sym_dictionary, STATE 7017), (sym_struct_literal, STATE 7017),
    (sym_list_comprehension, STATE 7017), (sym_dictionary_comprehension, STATE 7017),
    (sym_set_comprehension, STATE 7017), (sym_generator_expression, STATE 7017),
    (sym_parenthesized_expression, STATE 7017), (sym_conditional_expression, STATE 7969),
    (sym_concatenated_string, STATE 7017), (sym_string, STATE 6751), (sym_await, STATE 7017),
    (aux_sym_module_repeat1, STATE 925), (aux_sym_decorated_definition_repeat1, STATE 3670),
    (sym_identifier, ACTIONS 9), (anon_sym_import, ACTIONS 11), (anon_sym_from, ACTIONS 13),
    (anon_sym_LPAREN, ACTIONS 15), (anon_sym_STAR, ACTIONS 17), (anon_sym_print, ACTIONS 19),
    (anon_sym_comptime, ACTIONS 99), (anon_sym_assert, ACTIONS 23),
    (anon_sym___comptime_assert, ACTIONS 25), (anon_sym_return, ACTIONS 27),
    (anon_sym_del, ACTIONS 29), (anon_sym_raise, ACTIONS 31), (anon_sym_pass, ACTIONS 33),
    (anon_sym_break, ACTIONS 35), (anon_sym_continue, ACTIONS 37),
    (anon_sym___extension, ACTIONS 101), (anon_sym___mlir_region, ACTIONS 103),
    (anon_sym_if, ACTIONS 105), (anon_sym_match, ACTIONS 107), (anon_sym_async, ACTIONS 109),
    (anon_sym_for, ACTIONS 111), (anon_sym_while, ACTIONS 113), (anon_sym_try, ACTIONS 115),
    (anon_sym_with, ACTIONS 117), (anon_sym_def, ACTIONS 119), (anon_sym_fn, ACTIONS 119),
    (anon_sym_LBRACK, ACTIONS 59), (anon_sym_LBRACE, ACTIONS 61), (anon_sym_global, ACTIONS 63),
    (anon_sym_nonlocal, ACTIONS 65), (anon_sym_exec, ACTIONS 67), (anon_sym_type, ACTIONS 69),
    (anon_sym_class, ACTIONS 121), (anon_sym_struct, ACTIONS 121), (anon_sym_mut, ACTIONS 73),
    (anon_sym_out, ACTIONS 73), (anon_sym_trait, ACTIONS 123), (anon_sym_AT, ACTIONS 77),
    (anon_sym_DASH, ACTIONS 79), (anon_sym_PLUS, ACTIONS 79), (anon_sym_ref, ACTIONS 81),
    (anon_sym_var, ACTIONS 81), (anon_sym_not, ACTIONS 83), (anon_sym_TILDE, ACTIONS 79),
    (anon_sym_lambda, ACTIONS 85), (anon_sym_yield, ACTIONS 87), (sym_ellipsis, ACTIONS 89),
    (anon_sym___mlir_type, ACTIONS 91), (sym_integer, ACTIONS 93), (sym_float, ACTIONS 89),
    (anon_sym_await, ACTIONS 95), (sym_true, ACTIONS 93), (sym_false, ACTIONS 93),
    (sym_none, ACTIONS 93), (sym_comment, ACTIONS 3), (sym_line_continuation, ACTIONS 3),
    (sym__dedent, ACTIONS 129), (sym_string_start, ACTIONS 97)]"

definition parse_table_294 :: "(nat \<times> nat) list" where "parse_table_294 = [
    (sym__statement, STATE 925), (sym__simple_statements, STATE 925),
    (sym_import_statement, STATE 11814), (sym_future_import_statement, STATE 11814),
    (sym_import_from_statement, STATE 11814), (sym_print_statement, STATE 11814),
    (sym_assert_statement, STATE 11814), (sym_comptime_assert_statement, STATE 11814),
    (sym_expression_statement, STATE 11814), (sym_tuple_expression, STATE 12425),
    (sym_named_expression, STATE 7969), (sym__named_expression_lhs, STATE 12752),
    (sym_return_statement, STATE 11814), (sym_delete_statement, STATE 11814),
    (sym_raise_statement, STATE 11814), (sym_pass_statement, STATE 11814),
    (sym_break_statement, STATE 11814), (sym_continue_statement, STATE 11814),
    (sym_extension_definition, STATE 925), (sym_mlir_region, STATE 925),
    (sym_comptime_statement, STATE 925), (sym_if_statement, STATE 925),
    (sym_match_statement, STATE 925), (sym_for_statement, STATE 925),
    (sym_while_statement, STATE 925), (sym_try_statement, STATE 925),
    (sym_with_statement, STATE 925), (sym_function_definition, STATE 925),
    (sym_global_statement, STATE 11814), (sym_nonlocal_statement, STATE 11814),
    (sym_exec_statement, STATE 11814), (sym_type_alias_statement, STATE 11814),
    (sym_parameterized_alias_statement, STATE 11814), (sym_class_definition, STATE 925),
    (sym_trait_definition, STATE 925), (sym_decorated_definition, STATE 925),
    (sym_decorator, STATE 3670), (sym_block, STATE 5638), (sym_pattern, STATE 8086),
    (sym_tuple_pattern, STATE 8101), (sym_list_pattern, STATE 8101),
    (sym_list_splat_pattern, STATE 6819), (sym_as_pattern, STATE 7969),
    (sym_expression, STATE 9883), (sym_primary_expression, STATE 7326),
    (sym_comptime_expression, STATE 7017), (sym_transfer_expression, STATE 7017),
    (sym_not_operator, STATE 7969), (sym_boolean_operator, STATE 7969),
    (sym_binary_operator, STATE 7017), (sym_unary_operator, STATE 7017),
    (sym_comparison_operator, STATE 7969), (sym_lambda, STATE 7969),
    (sym_assignment, STATE 12425), (sym_augmented_assignment, STATE 12425),
    (sym_pattern_list, STATE 8578), (sym_yield, STATE 12425), (sym_attribute, STATE 6836),
    (sym_subscript, STATE 6838), (sym_call, STATE 6845), (sym_mlir_type, STATE 7017),
    (sym_list, STATE 7017), (sym_set, STATE 7017), (sym_tuple, STATE 7017),
    (sym_dictionary, STATE 7017), (sym_struct_literal, STATE 7017),
    (sym_list_comprehension, STATE 7017), (sym_dictionary_comprehension, STATE 7017),
    (sym_set_comprehension, STATE 7017), (sym_generator_expression, STATE 7017),
    (sym_parenthesized_expression, STATE 7017), (sym_conditional_expression, STATE 7969),
    (sym_concatenated_string, STATE 7017), (sym_string, STATE 6751), (sym_await, STATE 7017),
    (aux_sym_module_repeat1, STATE 925), (aux_sym_decorated_definition_repeat1, STATE 3670),
    (sym_identifier, ACTIONS 9), (anon_sym_import, ACTIONS 11), (anon_sym_from, ACTIONS 13),
    (anon_sym_LPAREN, ACTIONS 15), (anon_sym_STAR, ACTIONS 17), (anon_sym_print, ACTIONS 19),
    (anon_sym_comptime, ACTIONS 99), (anon_sym_assert, ACTIONS 23),
    (anon_sym___comptime_assert, ACTIONS 25), (anon_sym_return, ACTIONS 27),
    (anon_sym_del, ACTIONS 29), (anon_sym_raise, ACTIONS 31), (anon_sym_pass, ACTIONS 33),
    (anon_sym_break, ACTIONS 35), (anon_sym_continue, ACTIONS 37),
    (anon_sym___extension, ACTIONS 101), (anon_sym___mlir_region, ACTIONS 103),
    (anon_sym_if, ACTIONS 105), (anon_sym_match, ACTIONS 107), (anon_sym_async, ACTIONS 109),
    (anon_sym_for, ACTIONS 111), (anon_sym_while, ACTIONS 113), (anon_sym_try, ACTIONS 115),
    (anon_sym_with, ACTIONS 117), (anon_sym_def, ACTIONS 119), (anon_sym_fn, ACTIONS 119),
    (anon_sym_LBRACK, ACTIONS 59), (anon_sym_LBRACE, ACTIONS 61), (anon_sym_global, ACTIONS 63),
    (anon_sym_nonlocal, ACTIONS 65), (anon_sym_exec, ACTIONS 67), (anon_sym_type, ACTIONS 69),
    (anon_sym_class, ACTIONS 121), (anon_sym_struct, ACTIONS 121), (anon_sym_mut, ACTIONS 73),
    (anon_sym_out, ACTIONS 73), (anon_sym_trait, ACTIONS 123), (anon_sym_AT, ACTIONS 77),
    (anon_sym_DASH, ACTIONS 79), (anon_sym_PLUS, ACTIONS 79), (anon_sym_ref, ACTIONS 81),
    (anon_sym_var, ACTIONS 81), (anon_sym_not, ACTIONS 83), (anon_sym_TILDE, ACTIONS 79),
    (anon_sym_lambda, ACTIONS 85), (anon_sym_yield, ACTIONS 87), (sym_ellipsis, ACTIONS 89),
    (anon_sym___mlir_type, ACTIONS 91), (sym_integer, ACTIONS 93), (sym_float, ACTIONS 89),
    (anon_sym_await, ACTIONS 95), (sym_true, ACTIONS 93), (sym_false, ACTIONS 93),
    (sym_none, ACTIONS 93), (sym_comment, ACTIONS 3), (sym_line_continuation, ACTIONS 3),
    (sym__dedent, ACTIONS 129), (sym_string_start, ACTIONS 97)]"

definition parse_table_295 :: "(nat \<times> nat) list" where "parse_table_295 = [
    (sym__statement, STATE 925), (sym__simple_statements, STATE 925),
    (sym_import_statement, STATE 11814), (sym_future_import_statement, STATE 11814),
    (sym_import_from_statement, STATE 11814), (sym_print_statement, STATE 11814),
    (sym_assert_statement, STATE 11814), (sym_comptime_assert_statement, STATE 11814),
    (sym_expression_statement, STATE 11814), (sym_tuple_expression, STATE 12425),
    (sym_named_expression, STATE 7969), (sym__named_expression_lhs, STATE 12752),
    (sym_return_statement, STATE 11814), (sym_delete_statement, STATE 11814),
    (sym_raise_statement, STATE 11814), (sym_pass_statement, STATE 11814),
    (sym_break_statement, STATE 11814), (sym_continue_statement, STATE 11814),
    (sym_extension_definition, STATE 925), (sym_mlir_region, STATE 925),
    (sym_comptime_statement, STATE 925), (sym_if_statement, STATE 925),
    (sym_match_statement, STATE 925), (sym_for_statement, STATE 925),
    (sym_while_statement, STATE 925), (sym_try_statement, STATE 925),
    (sym_with_statement, STATE 925), (sym_function_definition, STATE 925),
    (sym_global_statement, STATE 11814), (sym_nonlocal_statement, STATE 11814),
    (sym_exec_statement, STATE 11814), (sym_type_alias_statement, STATE 11814),
    (sym_parameterized_alias_statement, STATE 11814), (sym_class_definition, STATE 925),
    (sym_trait_definition, STATE 925), (sym_decorated_definition, STATE 925),
    (sym_decorator, STATE 3670), (sym_block, STATE 5645), (sym_pattern, STATE 8086),
    (sym_tuple_pattern, STATE 8101), (sym_list_pattern, STATE 8101),
    (sym_list_splat_pattern, STATE 6819), (sym_as_pattern, STATE 7969),
    (sym_expression, STATE 9883), (sym_primary_expression, STATE 7326),
    (sym_comptime_expression, STATE 7017), (sym_transfer_expression, STATE 7017),
    (sym_not_operator, STATE 7969), (sym_boolean_operator, STATE 7969),
    (sym_binary_operator, STATE 7017), (sym_unary_operator, STATE 7017),
    (sym_comparison_operator, STATE 7969), (sym_lambda, STATE 7969),
    (sym_assignment, STATE 12425), (sym_augmented_assignment, STATE 12425),
    (sym_pattern_list, STATE 8578), (sym_yield, STATE 12425), (sym_attribute, STATE 6836),
    (sym_subscript, STATE 6838), (sym_call, STATE 6845), (sym_mlir_type, STATE 7017),
    (sym_list, STATE 7017), (sym_set, STATE 7017), (sym_tuple, STATE 7017),
    (sym_dictionary, STATE 7017), (sym_struct_literal, STATE 7017),
    (sym_list_comprehension, STATE 7017), (sym_dictionary_comprehension, STATE 7017),
    (sym_set_comprehension, STATE 7017), (sym_generator_expression, STATE 7017),
    (sym_parenthesized_expression, STATE 7017), (sym_conditional_expression, STATE 7969),
    (sym_concatenated_string, STATE 7017), (sym_string, STATE 6751), (sym_await, STATE 7017),
    (aux_sym_module_repeat1, STATE 925), (aux_sym_decorated_definition_repeat1, STATE 3670),
    (sym_identifier, ACTIONS 9), (anon_sym_import, ACTIONS 11), (anon_sym_from, ACTIONS 13),
    (anon_sym_LPAREN, ACTIONS 15), (anon_sym_STAR, ACTIONS 17), (anon_sym_print, ACTIONS 19),
    (anon_sym_comptime, ACTIONS 99), (anon_sym_assert, ACTIONS 23),
    (anon_sym___comptime_assert, ACTIONS 25), (anon_sym_return, ACTIONS 27),
    (anon_sym_del, ACTIONS 29), (anon_sym_raise, ACTIONS 31), (anon_sym_pass, ACTIONS 33),
    (anon_sym_break, ACTIONS 35), (anon_sym_continue, ACTIONS 37),
    (anon_sym___extension, ACTIONS 101), (anon_sym___mlir_region, ACTIONS 103),
    (anon_sym_if, ACTIONS 105), (anon_sym_match, ACTIONS 107), (anon_sym_async, ACTIONS 109),
    (anon_sym_for, ACTIONS 111), (anon_sym_while, ACTIONS 113), (anon_sym_try, ACTIONS 115),
    (anon_sym_with, ACTIONS 117), (anon_sym_def, ACTIONS 119), (anon_sym_fn, ACTIONS 119),
    (anon_sym_LBRACK, ACTIONS 59), (anon_sym_LBRACE, ACTIONS 61), (anon_sym_global, ACTIONS 63),
    (anon_sym_nonlocal, ACTIONS 65), (anon_sym_exec, ACTIONS 67), (anon_sym_type, ACTIONS 69),
    (anon_sym_class, ACTIONS 121), (anon_sym_struct, ACTIONS 121), (anon_sym_mut, ACTIONS 73),
    (anon_sym_out, ACTIONS 73), (anon_sym_trait, ACTIONS 123), (anon_sym_AT, ACTIONS 77),
    (anon_sym_DASH, ACTIONS 79), (anon_sym_PLUS, ACTIONS 79), (anon_sym_ref, ACTIONS 81),
    (anon_sym_var, ACTIONS 81), (anon_sym_not, ACTIONS 83), (anon_sym_TILDE, ACTIONS 79),
    (anon_sym_lambda, ACTIONS 85), (anon_sym_yield, ACTIONS 87), (sym_ellipsis, ACTIONS 89),
    (anon_sym___mlir_type, ACTIONS 91), (sym_integer, ACTIONS 93), (sym_float, ACTIONS 89),
    (anon_sym_await, ACTIONS 95), (sym_true, ACTIONS 93), (sym_false, ACTIONS 93),
    (sym_none, ACTIONS 93), (sym_comment, ACTIONS 3), (sym_line_continuation, ACTIONS 3),
    (sym__dedent, ACTIONS 129), (sym_string_start, ACTIONS 97)]"

definition parse_table_296 :: "(nat \<times> nat) list" where "parse_table_296 = [
    (sym__statement, STATE 925), (sym__simple_statements, STATE 925),
    (sym_import_statement, STATE 11814), (sym_future_import_statement, STATE 11814),
    (sym_import_from_statement, STATE 11814), (sym_print_statement, STATE 11814),
    (sym_assert_statement, STATE 11814), (sym_comptime_assert_statement, STATE 11814),
    (sym_expression_statement, STATE 11814), (sym_tuple_expression, STATE 12425),
    (sym_named_expression, STATE 7969), (sym__named_expression_lhs, STATE 12752),
    (sym_return_statement, STATE 11814), (sym_delete_statement, STATE 11814),
    (sym_raise_statement, STATE 11814), (sym_pass_statement, STATE 11814),
    (sym_break_statement, STATE 11814), (sym_continue_statement, STATE 11814),
    (sym_extension_definition, STATE 925), (sym_mlir_region, STATE 925),
    (sym_comptime_statement, STATE 925), (sym_if_statement, STATE 925),
    (sym_match_statement, STATE 925), (sym_for_statement, STATE 925),
    (sym_while_statement, STATE 925), (sym_try_statement, STATE 925),
    (sym_with_statement, STATE 925), (sym_function_definition, STATE 925),
    (sym_global_statement, STATE 11814), (sym_nonlocal_statement, STATE 11814),
    (sym_exec_statement, STATE 11814), (sym_type_alias_statement, STATE 11814),
    (sym_parameterized_alias_statement, STATE 11814), (sym_class_definition, STATE 925),
    (sym_trait_definition, STATE 925), (sym_decorated_definition, STATE 925),
    (sym_decorator, STATE 3670), (sym_block, STATE 5648), (sym_pattern, STATE 8086),
    (sym_tuple_pattern, STATE 8101), (sym_list_pattern, STATE 8101),
    (sym_list_splat_pattern, STATE 6819), (sym_as_pattern, STATE 7969),
    (sym_expression, STATE 9883), (sym_primary_expression, STATE 7326),
    (sym_comptime_expression, STATE 7017), (sym_transfer_expression, STATE 7017),
    (sym_not_operator, STATE 7969), (sym_boolean_operator, STATE 7969),
    (sym_binary_operator, STATE 7017), (sym_unary_operator, STATE 7017),
    (sym_comparison_operator, STATE 7969), (sym_lambda, STATE 7969),
    (sym_assignment, STATE 12425), (sym_augmented_assignment, STATE 12425),
    (sym_pattern_list, STATE 8578), (sym_yield, STATE 12425), (sym_attribute, STATE 6836),
    (sym_subscript, STATE 6838), (sym_call, STATE 6845), (sym_mlir_type, STATE 7017),
    (sym_list, STATE 7017), (sym_set, STATE 7017), (sym_tuple, STATE 7017),
    (sym_dictionary, STATE 7017), (sym_struct_literal, STATE 7017),
    (sym_list_comprehension, STATE 7017), (sym_dictionary_comprehension, STATE 7017),
    (sym_set_comprehension, STATE 7017), (sym_generator_expression, STATE 7017),
    (sym_parenthesized_expression, STATE 7017), (sym_conditional_expression, STATE 7969),
    (sym_concatenated_string, STATE 7017), (sym_string, STATE 6751), (sym_await, STATE 7017),
    (aux_sym_module_repeat1, STATE 925), (aux_sym_decorated_definition_repeat1, STATE 3670),
    (sym_identifier, ACTIONS 9), (anon_sym_import, ACTIONS 11), (anon_sym_from, ACTIONS 13),
    (anon_sym_LPAREN, ACTIONS 15), (anon_sym_STAR, ACTIONS 17), (anon_sym_print, ACTIONS 19),
    (anon_sym_comptime, ACTIONS 99), (anon_sym_assert, ACTIONS 23),
    (anon_sym___comptime_assert, ACTIONS 25), (anon_sym_return, ACTIONS 27),
    (anon_sym_del, ACTIONS 29), (anon_sym_raise, ACTIONS 31), (anon_sym_pass, ACTIONS 33),
    (anon_sym_break, ACTIONS 35), (anon_sym_continue, ACTIONS 37),
    (anon_sym___extension, ACTIONS 101), (anon_sym___mlir_region, ACTIONS 103),
    (anon_sym_if, ACTIONS 105), (anon_sym_match, ACTIONS 107), (anon_sym_async, ACTIONS 109),
    (anon_sym_for, ACTIONS 111), (anon_sym_while, ACTIONS 113), (anon_sym_try, ACTIONS 115),
    (anon_sym_with, ACTIONS 117), (anon_sym_def, ACTIONS 119), (anon_sym_fn, ACTIONS 119),
    (anon_sym_LBRACK, ACTIONS 59), (anon_sym_LBRACE, ACTIONS 61), (anon_sym_global, ACTIONS 63),
    (anon_sym_nonlocal, ACTIONS 65), (anon_sym_exec, ACTIONS 67), (anon_sym_type, ACTIONS 69),
    (anon_sym_class, ACTIONS 121), (anon_sym_struct, ACTIONS 121), (anon_sym_mut, ACTIONS 73),
    (anon_sym_out, ACTIONS 73), (anon_sym_trait, ACTIONS 123), (anon_sym_AT, ACTIONS 77),
    (anon_sym_DASH, ACTIONS 79), (anon_sym_PLUS, ACTIONS 79), (anon_sym_ref, ACTIONS 81),
    (anon_sym_var, ACTIONS 81), (anon_sym_not, ACTIONS 83), (anon_sym_TILDE, ACTIONS 79),
    (anon_sym_lambda, ACTIONS 85), (anon_sym_yield, ACTIONS 87), (sym_ellipsis, ACTIONS 89),
    (anon_sym___mlir_type, ACTIONS 91), (sym_integer, ACTIONS 93), (sym_float, ACTIONS 89),
    (anon_sym_await, ACTIONS 95), (sym_true, ACTIONS 93), (sym_false, ACTIONS 93),
    (sym_none, ACTIONS 93), (sym_comment, ACTIONS 3), (sym_line_continuation, ACTIONS 3),
    (sym__dedent, ACTIONS 129), (sym_string_start, ACTIONS 97)]"

definition parse_table_297 :: "(nat \<times> nat) list" where "parse_table_297 = [
    (sym__statement, STATE 925), (sym__simple_statements, STATE 925),
    (sym_import_statement, STATE 11814), (sym_future_import_statement, STATE 11814),
    (sym_import_from_statement, STATE 11814), (sym_print_statement, STATE 11814),
    (sym_assert_statement, STATE 11814), (sym_comptime_assert_statement, STATE 11814),
    (sym_expression_statement, STATE 11814), (sym_tuple_expression, STATE 12425),
    (sym_named_expression, STATE 7969), (sym__named_expression_lhs, STATE 12752),
    (sym_return_statement, STATE 11814), (sym_delete_statement, STATE 11814),
    (sym_raise_statement, STATE 11814), (sym_pass_statement, STATE 11814),
    (sym_break_statement, STATE 11814), (sym_continue_statement, STATE 11814),
    (sym_extension_definition, STATE 925), (sym_mlir_region, STATE 925),
    (sym_comptime_statement, STATE 925), (sym_if_statement, STATE 925),
    (sym_match_statement, STATE 925), (sym_for_statement, STATE 925),
    (sym_while_statement, STATE 925), (sym_try_statement, STATE 925),
    (sym_with_statement, STATE 925), (sym_function_definition, STATE 925),
    (sym_global_statement, STATE 11814), (sym_nonlocal_statement, STATE 11814),
    (sym_exec_statement, STATE 11814), (sym_type_alias_statement, STATE 11814),
    (sym_parameterized_alias_statement, STATE 11814), (sym_class_definition, STATE 925),
    (sym_trait_definition, STATE 925), (sym_decorated_definition, STATE 925),
    (sym_decorator, STATE 3670), (sym_block, STATE 5660), (sym_pattern, STATE 8086),
    (sym_tuple_pattern, STATE 8101), (sym_list_pattern, STATE 8101),
    (sym_list_splat_pattern, STATE 6819), (sym_as_pattern, STATE 7969),
    (sym_expression, STATE 9883), (sym_primary_expression, STATE 7326),
    (sym_comptime_expression, STATE 7017), (sym_transfer_expression, STATE 7017),
    (sym_not_operator, STATE 7969), (sym_boolean_operator, STATE 7969),
    (sym_binary_operator, STATE 7017), (sym_unary_operator, STATE 7017),
    (sym_comparison_operator, STATE 7969), (sym_lambda, STATE 7969),
    (sym_assignment, STATE 12425), (sym_augmented_assignment, STATE 12425),
    (sym_pattern_list, STATE 8578), (sym_yield, STATE 12425), (sym_attribute, STATE 6836),
    (sym_subscript, STATE 6838), (sym_call, STATE 6845), (sym_mlir_type, STATE 7017),
    (sym_list, STATE 7017), (sym_set, STATE 7017), (sym_tuple, STATE 7017),
    (sym_dictionary, STATE 7017), (sym_struct_literal, STATE 7017),
    (sym_list_comprehension, STATE 7017), (sym_dictionary_comprehension, STATE 7017),
    (sym_set_comprehension, STATE 7017), (sym_generator_expression, STATE 7017),
    (sym_parenthesized_expression, STATE 7017), (sym_conditional_expression, STATE 7969),
    (sym_concatenated_string, STATE 7017), (sym_string, STATE 6751), (sym_await, STATE 7017),
    (aux_sym_module_repeat1, STATE 925), (aux_sym_decorated_definition_repeat1, STATE 3670),
    (sym_identifier, ACTIONS 9), (anon_sym_import, ACTIONS 11), (anon_sym_from, ACTIONS 13),
    (anon_sym_LPAREN, ACTIONS 15), (anon_sym_STAR, ACTIONS 17), (anon_sym_print, ACTIONS 19),
    (anon_sym_comptime, ACTIONS 99), (anon_sym_assert, ACTIONS 23),
    (anon_sym___comptime_assert, ACTIONS 25), (anon_sym_return, ACTIONS 27),
    (anon_sym_del, ACTIONS 29), (anon_sym_raise, ACTIONS 31), (anon_sym_pass, ACTIONS 33),
    (anon_sym_break, ACTIONS 35), (anon_sym_continue, ACTIONS 37),
    (anon_sym___extension, ACTIONS 101), (anon_sym___mlir_region, ACTIONS 103),
    (anon_sym_if, ACTIONS 105), (anon_sym_match, ACTIONS 107), (anon_sym_async, ACTIONS 109),
    (anon_sym_for, ACTIONS 111), (anon_sym_while, ACTIONS 113), (anon_sym_try, ACTIONS 115),
    (anon_sym_with, ACTIONS 117), (anon_sym_def, ACTIONS 119), (anon_sym_fn, ACTIONS 119),
    (anon_sym_LBRACK, ACTIONS 59), (anon_sym_LBRACE, ACTIONS 61), (anon_sym_global, ACTIONS 63),
    (anon_sym_nonlocal, ACTIONS 65), (anon_sym_exec, ACTIONS 67), (anon_sym_type, ACTIONS 69),
    (anon_sym_class, ACTIONS 121), (anon_sym_struct, ACTIONS 121), (anon_sym_mut, ACTIONS 73),
    (anon_sym_out, ACTIONS 73), (anon_sym_trait, ACTIONS 123), (anon_sym_AT, ACTIONS 77),
    (anon_sym_DASH, ACTIONS 79), (anon_sym_PLUS, ACTIONS 79), (anon_sym_ref, ACTIONS 81),
    (anon_sym_var, ACTIONS 81), (anon_sym_not, ACTIONS 83), (anon_sym_TILDE, ACTIONS 79),
    (anon_sym_lambda, ACTIONS 85), (anon_sym_yield, ACTIONS 87), (sym_ellipsis, ACTIONS 89),
    (anon_sym___mlir_type, ACTIONS 91), (sym_integer, ACTIONS 93), (sym_float, ACTIONS 89),
    (anon_sym_await, ACTIONS 95), (sym_true, ACTIONS 93), (sym_false, ACTIONS 93),
    (sym_none, ACTIONS 93), (sym_comment, ACTIONS 3), (sym_line_continuation, ACTIONS 3),
    (sym__dedent, ACTIONS 129), (sym_string_start, ACTIONS 97)]"

definition parse_table_298 :: "(nat \<times> nat) list" where "parse_table_298 = [
    (sym__statement, STATE 925), (sym__simple_statements, STATE 925),
    (sym_import_statement, STATE 11814), (sym_future_import_statement, STATE 11814),
    (sym_import_from_statement, STATE 11814), (sym_print_statement, STATE 11814),
    (sym_assert_statement, STATE 11814), (sym_comptime_assert_statement, STATE 11814),
    (sym_expression_statement, STATE 11814), (sym_tuple_expression, STATE 12425),
    (sym_named_expression, STATE 7969), (sym__named_expression_lhs, STATE 12752),
    (sym_return_statement, STATE 11814), (sym_delete_statement, STATE 11814),
    (sym_raise_statement, STATE 11814), (sym_pass_statement, STATE 11814),
    (sym_break_statement, STATE 11814), (sym_continue_statement, STATE 11814),
    (sym_extension_definition, STATE 925), (sym_mlir_region, STATE 925),
    (sym_comptime_statement, STATE 925), (sym_if_statement, STATE 925),
    (sym_match_statement, STATE 925), (sym_for_statement, STATE 925),
    (sym_while_statement, STATE 925), (sym_try_statement, STATE 925),
    (sym_with_statement, STATE 925), (sym_function_definition, STATE 925),
    (sym_global_statement, STATE 11814), (sym_nonlocal_statement, STATE 11814),
    (sym_exec_statement, STATE 11814), (sym_type_alias_statement, STATE 11814),
    (sym_parameterized_alias_statement, STATE 11814), (sym_class_definition, STATE 925),
    (sym_trait_definition, STATE 925), (sym_decorated_definition, STATE 925),
    (sym_decorator, STATE 3670), (sym_block, STATE 5673), (sym_pattern, STATE 8086),
    (sym_tuple_pattern, STATE 8101), (sym_list_pattern, STATE 8101),
    (sym_list_splat_pattern, STATE 6819), (sym_as_pattern, STATE 7969),
    (sym_expression, STATE 9883), (sym_primary_expression, STATE 7326),
    (sym_comptime_expression, STATE 7017), (sym_transfer_expression, STATE 7017),
    (sym_not_operator, STATE 7969), (sym_boolean_operator, STATE 7969),
    (sym_binary_operator, STATE 7017), (sym_unary_operator, STATE 7017),
    (sym_comparison_operator, STATE 7969), (sym_lambda, STATE 7969),
    (sym_assignment, STATE 12425), (sym_augmented_assignment, STATE 12425),
    (sym_pattern_list, STATE 8578), (sym_yield, STATE 12425), (sym_attribute, STATE 6836),
    (sym_subscript, STATE 6838), (sym_call, STATE 6845), (sym_mlir_type, STATE 7017),
    (sym_list, STATE 7017), (sym_set, STATE 7017), (sym_tuple, STATE 7017),
    (sym_dictionary, STATE 7017), (sym_struct_literal, STATE 7017),
    (sym_list_comprehension, STATE 7017), (sym_dictionary_comprehension, STATE 7017),
    (sym_set_comprehension, STATE 7017), (sym_generator_expression, STATE 7017),
    (sym_parenthesized_expression, STATE 7017), (sym_conditional_expression, STATE 7969),
    (sym_concatenated_string, STATE 7017), (sym_string, STATE 6751), (sym_await, STATE 7017),
    (aux_sym_module_repeat1, STATE 925), (aux_sym_decorated_definition_repeat1, STATE 3670),
    (sym_identifier, ACTIONS 9), (anon_sym_import, ACTIONS 11), (anon_sym_from, ACTIONS 13),
    (anon_sym_LPAREN, ACTIONS 15), (anon_sym_STAR, ACTIONS 17), (anon_sym_print, ACTIONS 19),
    (anon_sym_comptime, ACTIONS 99), (anon_sym_assert, ACTIONS 23),
    (anon_sym___comptime_assert, ACTIONS 25), (anon_sym_return, ACTIONS 27),
    (anon_sym_del, ACTIONS 29), (anon_sym_raise, ACTIONS 31), (anon_sym_pass, ACTIONS 33),
    (anon_sym_break, ACTIONS 35), (anon_sym_continue, ACTIONS 37),
    (anon_sym___extension, ACTIONS 101), (anon_sym___mlir_region, ACTIONS 103),
    (anon_sym_if, ACTIONS 105), (anon_sym_match, ACTIONS 107), (anon_sym_async, ACTIONS 109),
    (anon_sym_for, ACTIONS 111), (anon_sym_while, ACTIONS 113), (anon_sym_try, ACTIONS 115),
    (anon_sym_with, ACTIONS 117), (anon_sym_def, ACTIONS 119), (anon_sym_fn, ACTIONS 119),
    (anon_sym_LBRACK, ACTIONS 59), (anon_sym_LBRACE, ACTIONS 61), (anon_sym_global, ACTIONS 63),
    (anon_sym_nonlocal, ACTIONS 65), (anon_sym_exec, ACTIONS 67), (anon_sym_type, ACTIONS 69),
    (anon_sym_class, ACTIONS 121), (anon_sym_struct, ACTIONS 121), (anon_sym_mut, ACTIONS 73),
    (anon_sym_out, ACTIONS 73), (anon_sym_trait, ACTIONS 123), (anon_sym_AT, ACTIONS 77),
    (anon_sym_DASH, ACTIONS 79), (anon_sym_PLUS, ACTIONS 79), (anon_sym_ref, ACTIONS 81),
    (anon_sym_var, ACTIONS 81), (anon_sym_not, ACTIONS 83), (anon_sym_TILDE, ACTIONS 79),
    (anon_sym_lambda, ACTIONS 85), (anon_sym_yield, ACTIONS 87), (sym_ellipsis, ACTIONS 89),
    (anon_sym___mlir_type, ACTIONS 91), (sym_integer, ACTIONS 93), (sym_float, ACTIONS 89),
    (anon_sym_await, ACTIONS 95), (sym_true, ACTIONS 93), (sym_false, ACTIONS 93),
    (sym_none, ACTIONS 93), (sym_comment, ACTIONS 3), (sym_line_continuation, ACTIONS 3),
    (sym__dedent, ACTIONS 129), (sym_string_start, ACTIONS 97)]"

definition parse_table_299 :: "(nat \<times> nat) list" where "parse_table_299 = [
    (sym__statement, STATE 925), (sym__simple_statements, STATE 925),
    (sym_import_statement, STATE 11814), (sym_future_import_statement, STATE 11814),
    (sym_import_from_statement, STATE 11814), (sym_print_statement, STATE 11814),
    (sym_assert_statement, STATE 11814), (sym_comptime_assert_statement, STATE 11814),
    (sym_expression_statement, STATE 11814), (sym_tuple_expression, STATE 12425),
    (sym_named_expression, STATE 7969), (sym__named_expression_lhs, STATE 12752),
    (sym_return_statement, STATE 11814), (sym_delete_statement, STATE 11814),
    (sym_raise_statement, STATE 11814), (sym_pass_statement, STATE 11814),
    (sym_break_statement, STATE 11814), (sym_continue_statement, STATE 11814),
    (sym_extension_definition, STATE 925), (sym_mlir_region, STATE 925),
    (sym_comptime_statement, STATE 925), (sym_if_statement, STATE 925),
    (sym_match_statement, STATE 925), (sym_for_statement, STATE 925),
    (sym_while_statement, STATE 925), (sym_try_statement, STATE 925),
    (sym_with_statement, STATE 925), (sym_function_definition, STATE 925),
    (sym_global_statement, STATE 11814), (sym_nonlocal_statement, STATE 11814),
    (sym_exec_statement, STATE 11814), (sym_type_alias_statement, STATE 11814),
    (sym_parameterized_alias_statement, STATE 11814), (sym_class_definition, STATE 925),
    (sym_trait_definition, STATE 925), (sym_decorated_definition, STATE 925),
    (sym_decorator, STATE 3670), (sym_block, STATE 5675), (sym_pattern, STATE 8086),
    (sym_tuple_pattern, STATE 8101), (sym_list_pattern, STATE 8101),
    (sym_list_splat_pattern, STATE 6819), (sym_as_pattern, STATE 7969),
    (sym_expression, STATE 9883), (sym_primary_expression, STATE 7326),
    (sym_comptime_expression, STATE 7017), (sym_transfer_expression, STATE 7017),
    (sym_not_operator, STATE 7969), (sym_boolean_operator, STATE 7969),
    (sym_binary_operator, STATE 7017), (sym_unary_operator, STATE 7017),
    (sym_comparison_operator, STATE 7969), (sym_lambda, STATE 7969),
    (sym_assignment, STATE 12425), (sym_augmented_assignment, STATE 12425),
    (sym_pattern_list, STATE 8578), (sym_yield, STATE 12425), (sym_attribute, STATE 6836),
    (sym_subscript, STATE 6838), (sym_call, STATE 6845), (sym_mlir_type, STATE 7017),
    (sym_list, STATE 7017), (sym_set, STATE 7017), (sym_tuple, STATE 7017),
    (sym_dictionary, STATE 7017), (sym_struct_literal, STATE 7017),
    (sym_list_comprehension, STATE 7017), (sym_dictionary_comprehension, STATE 7017),
    (sym_set_comprehension, STATE 7017), (sym_generator_expression, STATE 7017),
    (sym_parenthesized_expression, STATE 7017), (sym_conditional_expression, STATE 7969),
    (sym_concatenated_string, STATE 7017), (sym_string, STATE 6751), (sym_await, STATE 7017),
    (aux_sym_module_repeat1, STATE 925), (aux_sym_decorated_definition_repeat1, STATE 3670),
    (sym_identifier, ACTIONS 9), (anon_sym_import, ACTIONS 11), (anon_sym_from, ACTIONS 13),
    (anon_sym_LPAREN, ACTIONS 15), (anon_sym_STAR, ACTIONS 17), (anon_sym_print, ACTIONS 19),
    (anon_sym_comptime, ACTIONS 99), (anon_sym_assert, ACTIONS 23),
    (anon_sym___comptime_assert, ACTIONS 25), (anon_sym_return, ACTIONS 27),
    (anon_sym_del, ACTIONS 29), (anon_sym_raise, ACTIONS 31), (anon_sym_pass, ACTIONS 33),
    (anon_sym_break, ACTIONS 35), (anon_sym_continue, ACTIONS 37),
    (anon_sym___extension, ACTIONS 101), (anon_sym___mlir_region, ACTIONS 103),
    (anon_sym_if, ACTIONS 105), (anon_sym_match, ACTIONS 107), (anon_sym_async, ACTIONS 109),
    (anon_sym_for, ACTIONS 111), (anon_sym_while, ACTIONS 113), (anon_sym_try, ACTIONS 115),
    (anon_sym_with, ACTIONS 117), (anon_sym_def, ACTIONS 119), (anon_sym_fn, ACTIONS 119),
    (anon_sym_LBRACK, ACTIONS 59), (anon_sym_LBRACE, ACTIONS 61), (anon_sym_global, ACTIONS 63),
    (anon_sym_nonlocal, ACTIONS 65), (anon_sym_exec, ACTIONS 67), (anon_sym_type, ACTIONS 69),
    (anon_sym_class, ACTIONS 121), (anon_sym_struct, ACTIONS 121), (anon_sym_mut, ACTIONS 73),
    (anon_sym_out, ACTIONS 73), (anon_sym_trait, ACTIONS 123), (anon_sym_AT, ACTIONS 77),
    (anon_sym_DASH, ACTIONS 79), (anon_sym_PLUS, ACTIONS 79), (anon_sym_ref, ACTIONS 81),
    (anon_sym_var, ACTIONS 81), (anon_sym_not, ACTIONS 83), (anon_sym_TILDE, ACTIONS 79),
    (anon_sym_lambda, ACTIONS 85), (anon_sym_yield, ACTIONS 87), (sym_ellipsis, ACTIONS 89),
    (anon_sym___mlir_type, ACTIONS 91), (sym_integer, ACTIONS 93), (sym_float, ACTIONS 89),
    (anon_sym_await, ACTIONS 95), (sym_true, ACTIONS 93), (sym_false, ACTIONS 93),
    (sym_none, ACTIONS 93), (sym_comment, ACTIONS 3), (sym_line_continuation, ACTIONS 3),
    (sym__dedent, ACTIONS 129), (sym_string_start, ACTIONS 97)]"

end
