(* ===== verification/Mojo_Parse_Rows_2.thy ===== *)
theory Mojo_Parse_Rows_2
  imports Mojo_Grammar Mojo_Table_Macros
begin

text \<open>
  The rows of \<open>ts_parse_table\<close> (\<^verbatim>\<open>grammars/tree-sitter-mojo/src/parser.c\<close>) for the parse states from
  300 to 449: for a symbol, the group of actions in \<open>ts_parse_actions\<close> for a token and the next state
  for a nonterminal. Definitions only, one for each state.
\<close>

section \<open>Rows\<close>

definition parse_table_300 :: "(nat \<times> nat) list" where "parse_table_300 = [
    (sym__statement, STATE 925), (sym__simple_statements, STATE 925),
    (sym_import_statement, STATE 11814), (sym_future_import_statement, STATE 11814),
    (sym_import_from_statement, STATE 11814), (sym_print_statement, STATE 11814),
    (sym_assert_statement, STATE 11814), (sym_comptime_assert_statement, STATE 11814),
    (sym_expression_statement, STATE 11814), (sym_tuple_expression, STATE 12425),
    (sym_named_expression, STATE 7969), (sym__named_expression_lhs, STATE 12752),
    (sym_return_statement, STATE 11814), (sym_delete_statement, STATE 11814),
    (sym_raise_statement, STATE 11814), (sym_pass_statement, STATE 11814),
    (sym_break_statement, STATE 11814), (sym_continue_statement, STATE 11814),
    (sym_extension_definition, STATE 925), (sym_mlir_region, STATE 925),
    (sym_comptime_statement, STATE 925), (sym_if_statement, STATE 925),
    (sym_match_statement, STATE 925), (sym_for_statement, STATE 925),
    (sym_while_statement, STATE 925), (sym_try_statement, STATE 925),
    (sym_with_statement, STATE 925), (sym_function_definition, STATE 925),
    (sym_global_statement, STATE 11814), (sym_nonlocal_statement, STATE 11814),
    (sym_exec_statement, STATE 11814), (sym_type_alias_statement, STATE 11814),
    (sym_parameterized_alias_statement, STATE 11814), (sym_class_definition, STATE 925),
    (sym_trait_definition, STATE 925), (sym_decorated_definition, STATE 925),
    (sym_decorator, STATE 3670), (sym_block, STATE 5676), (sym_pattern, STATE 8086),
    (sym_tuple_pattern, STATE 8101), (sym_list_pattern, STATE 8101),
    (sym_list_splat_pattern, STATE 6819), (sym_as_pattern, STATE 7969),
    (sym_expression, STATE 9883), (sym_primary_expression, STATE 7326),
    (sym_comptime_expression, STATE 7017), (sym_transfer_expression, STATE 7017),
    (sym_not_operator, STATE 7969), (sym_boolean_operator, STATE 7969),
    (sym_binary_operator, STATE 7017), (sym_unary_operator, STATE 7017),
    (sym_comparison_operator, STATE 7969), (sym_lambda, STATE 7969),
    (sym_assignment, STATE 12425), (sym_augmented_assignment, STATE 12425),
    (sym_pattern_list, STATE 8578), (sym_yield, STATE 12425), (sym_attribute, STATE 6836),
    (sym_subscript, STATE 6838), (sym_call, STATE 6845), (sym_mlir_type, STATE 7017),
    (sym_list, STATE 7017), (sym_set, STATE 7017), (sym_tuple, STATE 7017),
    (sym_dictionary, STATE 7017), (sym_struct_literal, STATE 7017),
    (sym_list_comprehension, STATE 7017), (sym_dictionary_comprehension, STATE 7017),
    (sym_set_comprehension, STATE 7017), (sym_generator_expression, STATE 7017),
    (sym_parenthesized_expression, STATE 7017), (sym_conditional_expression, STATE 7969),
    (sym_concatenated_string, STATE 7017), (sym_string, STATE 6751), (sym_await, STATE 7017),
    (aux_sym_module_repeat1, STATE 925), (aux_sym_decorated_definition_repeat1, STATE 3670),
    (sym_identifier, ACTIONS 9), (anon_sym_import, ACTIONS 11), (anon_sym_from, ACTIONS 13),
    (anon_sym_LPAREN, ACTIONS 15), (anon_sym_STAR, ACTIONS 17), (anon_sym_print, ACTIONS 19),
    (anon_sym_comptime, ACTIONS 99), (anon_sym_assert, ACTIONS 23),
    (anon_sym___comptime_assert, ACTIONS 25), (anon_sym_return, ACTIONS 27),
    (anon_sym_del, ACTIONS 29), (anon_sym_raise, ACTIONS 31), (anon_sym_pass, ACTIONS 33),
    (anon_sym_break, ACTIONS 35), (anon_sym_continue, ACTIONS 37),
    (anon_sym___extension, ACTIONS 101), (anon_sym___mlir_region, ACTIONS 103),
    (anon_sym_if, ACTIONS 105), (anon_sym_match, ACTIONS 107), (anon_sym_async, ACTIONS 109),
    (anon_sym_for, ACTIONS 111), (anon_sym_while, ACTIONS 113), (anon_sym_try, ACTIONS 115),
    (anon_sym_with, ACTIONS 117), (anon_sym_def, ACTIONS 119), (anon_sym_fn, ACTIONS 119),
    (anon_sym_LBRACK, ACTIONS 59), (anon_sym_LBRACE, ACTIONS 61), (anon_sym_global, ACTIONS 63),
    (anon_sym_nonlocal, ACTIONS 65), (anon_sym_exec, ACTIONS 67), (anon_sym_type, ACTIONS 69),
    (anon_sym_class, ACTIONS 121), (anon_sym_struct, ACTIONS 121), (anon_sym_mut, ACTIONS 73),
    (anon_sym_out, ACTIONS 73), (anon_sym_trait, ACTIONS 123), (anon_sym_AT, ACTIONS 77),
    (anon_sym_DASH, ACTIONS 79), (anon_sym_PLUS, ACTIONS 79), (anon_sym_ref, ACTIONS 81),
    (anon_sym_var, ACTIONS 81), (anon_sym_not, ACTIONS 83), (anon_sym_TILDE, ACTIONS 79),
    (anon_sym_lambda, ACTIONS 85), (anon_sym_yield, ACTIONS 87), (sym_ellipsis, ACTIONS 89),
    (anon_sym___mlir_type, ACTIONS 91), (sym_integer, ACTIONS 93), (sym_float, ACTIONS 89),
    (anon_sym_await, ACTIONS 95), (sym_true, ACTIONS 93), (sym_false, ACTIONS 93),
    (sym_none, ACTIONS 93), (sym_comment, ACTIONS 3), (sym_line_continuation, ACTIONS 3),
    (sym__dedent, ACTIONS 129), (sym_string_start, ACTIONS 97)]"

definition parse_table_301 :: "(nat \<times> nat) list" where "parse_table_301 = [
    (sym__statement, STATE 925), (sym__simple_statements, STATE 925),
    (sym_import_statement, STATE 11814), (sym_future_import_statement, STATE 11814),
    (sym_import_from_statement, STATE 11814), (sym_print_statement, STATE 11814),
    (sym_assert_statement, STATE 11814), (sym_comptime_assert_statement, STATE 11814),
    (sym_expression_statement, STATE 11814), (sym_tuple_expression, STATE 12425),
    (sym_named_expression, STATE 7969), (sym__named_expression_lhs, STATE 12752),
    (sym_return_statement, STATE 11814), (sym_delete_statement, STATE 11814),
    (sym_raise_statement, STATE 11814), (sym_pass_statement, STATE 11814),
    (sym_break_statement, STATE 11814), (sym_continue_statement, STATE 11814),
    (sym_extension_definition, STATE 925), (sym_mlir_region, STATE 925),
    (sym_comptime_statement, STATE 925), (sym_if_statement, STATE 925),
    (sym_match_statement, STATE 925), (sym_for_statement, STATE 925),
    (sym_while_statement, STATE 925), (sym_try_statement, STATE 925),
    (sym_with_statement, STATE 925), (sym_function_definition, STATE 925),
    (sym_global_statement, STATE 11814), (sym_nonlocal_statement, STATE 11814),
    (sym_exec_statement, STATE 11814), (sym_type_alias_statement, STATE 11814),
    (sym_parameterized_alias_statement, STATE 11814), (sym_class_definition, STATE 925),
    (sym_trait_definition, STATE 925), (sym_decorated_definition, STATE 925),
    (sym_decorator, STATE 3670), (sym_block, STATE 5687), (sym_pattern, STATE 8086),
    (sym_tuple_pattern, STATE 8101), (sym_list_pattern, STATE 8101),
    (sym_list_splat_pattern, STATE 6819), (sym_as_pattern, STATE 7969),
    (sym_expression, STATE 9883), (sym_primary_expression, STATE 7326),
    (sym_comptime_expression, STATE 7017), (sym_transfer_expression, STATE 7017),
    (sym_not_operator, STATE 7969), (sym_boolean_operator, STATE 7969),
    (sym_binary_operator, STATE 7017), (sym_unary_operator, STATE 7017),
    (sym_comparison_operator, STATE 7969), (sym_lambda, STATE 7969),
    (sym_assignment, STATE 12425), (sym_augmented_assignment, STATE 12425),
    (sym_pattern_list, STATE 8578), (sym_yield, STATE 12425), (sym_attribute, STATE 6836),
    (sym_subscript, STATE 6838), (sym_call, STATE 6845), (sym_mlir_type, STATE 7017),
    (sym_list, STATE 7017), (sym_set, STATE 7017), (sym_tuple, STATE 7017),
    (sym_dictionary, STATE 7017), (sym_struct_literal, STATE 7017),
    (sym_list_comprehension, STATE 7017), (sym_dictionary_comprehension, STATE 7017),
    (sym_set_comprehension, STATE 7017), (sym_generator_expression, STATE 7017),
    (sym_parenthesized_expression, STATE 7017), (sym_conditional_expression, STATE 7969),
    (sym_concatenated_string, STATE 7017), (sym_string, STATE 6751), (sym_await, STATE 7017),
    (aux_sym_module_repeat1, STATE 925), (aux_sym_decorated_definition_repeat1, STATE 3670),
    (sym_identifier, ACTIONS 9), (anon_sym_import, ACTIONS 11), (anon_sym_from, ACTIONS 13),
    (anon_sym_LPAREN, ACTIONS 15), (anon_sym_STAR, ACTIONS 17), (anon_sym_print, ACTIONS 19),
    (anon_sym_comptime, ACTIONS 99), (anon_sym_assert, ACTIONS 23),
    (anon_sym___comptime_assert, ACTIONS 25), (anon_sym_return, ACTIONS 27),
    (anon_sym_del, ACTIONS 29), (anon_sym_raise, ACTIONS 31), (anon_sym_pass, ACTIONS 33),
    (anon_sym_break, ACTIONS 35), (anon_sym_continue, ACTIONS 37),
    (anon_sym___extension, ACTIONS 101), (anon_sym___mlir_region, ACTIONS 103),
    (anon_sym_if, ACTIONS 105), (anon_sym_match, ACTIONS 107), (anon_sym_async, ACTIONS 109),
    (anon_sym_for, ACTIONS 111), (anon_sym_while, ACTIONS 113), (anon_sym_try, ACTIONS 115),
    (anon_sym_with, ACTIONS 117), (anon_sym_def, ACTIONS 119), (anon_sym_fn, ACTIONS 119),
    (anon_sym_LBRACK, ACTIONS 59), (anon_sym_LBRACE, ACTIONS 61), (anon_sym_global, ACTIONS 63),
    (anon_sym_nonlocal, ACTIONS 65), (anon_sym_exec, ACTIONS 67), (anon_sym_type, ACTIONS 69),
    (anon_sym_class, ACTIONS 121), (anon_sym_struct, ACTIONS 121), (anon_sym_mut, ACTIONS 73),
    (anon_sym_out, ACTIONS 73), (anon_sym_trait, ACTIONS 123), (anon_sym_AT, ACTIONS 77),
    (anon_sym_DASH, ACTIONS 79), (anon_sym_PLUS, ACTIONS 79), (anon_sym_ref, ACTIONS 81),
    (anon_sym_var, ACTIONS 81), (anon_sym_not, ACTIONS 83), (anon_sym_TILDE, ACTIONS 79),
    (anon_sym_lambda, ACTIONS 85), (anon_sym_yield, ACTIONS 87), (sym_ellipsis, ACTIONS 89),
    (anon_sym___mlir_type, ACTIONS 91), (sym_integer, ACTIONS 93), (sym_float, ACTIONS 89),
    (anon_sym_await, ACTIONS 95), (sym_true, ACTIONS 93), (sym_false, ACTIONS 93),
    (sym_none, ACTIONS 93), (sym_comment, ACTIONS 3), (sym_line_continuation, ACTIONS 3),
    (sym__dedent, ACTIONS 129), (sym_string_start, ACTIONS 97)]"

definition parse_table_302 :: "(nat \<times> nat) list" where "parse_table_302 = [
    (sym__statement, STATE 925), (sym__simple_statements, STATE 925),
    (sym_import_statement, STATE 11814), (sym_future_import_statement, STATE 11814),
    (sym_import_from_statement, STATE 11814), (sym_print_statement, STATE 11814),
    (sym_assert_statement, STATE 11814), (sym_comptime_assert_statement, STATE 11814),
    (sym_expression_statement, STATE 11814), (sym_tuple_expression, STATE 12425),
    (sym_named_expression, STATE 7969), (sym__named_expression_lhs, STATE 12752),
    (sym_return_statement, STATE 11814), (sym_delete_statement, STATE 11814),
    (sym_raise_statement, STATE 11814), (sym_pass_statement, STATE 11814),
    (sym_break_statement, STATE 11814), (sym_continue_statement, STATE 11814),
    (sym_extension_definition, STATE 925), (sym_mlir_region, STATE 925),
    (sym_comptime_statement, STATE 925), (sym_if_statement, STATE 925),
    (sym_match_statement, STATE 925), (sym_for_statement, STATE 925),
    (sym_while_statement, STATE 925), (sym_try_statement, STATE 925),
    (sym_with_statement, STATE 925), (sym_function_definition, STATE 925),
    (sym_global_statement, STATE 11814), (sym_nonlocal_statement, STATE 11814),
    (sym_exec_statement, STATE 11814), (sym_type_alias_statement, STATE 11814),
    (sym_parameterized_alias_statement, STATE 11814), (sym_class_definition, STATE 925),
    (sym_trait_definition, STATE 925), (sym_decorated_definition, STATE 925),
    (sym_decorator, STATE 3670), (sym_block, STATE 5694), (sym_pattern, STATE 8086),
    (sym_tuple_pattern, STATE 8101), (sym_list_pattern, STATE 8101),
    (sym_list_splat_pattern, STATE 6819), (sym_as_pattern, STATE 7969),
    (sym_expression, STATE 9883), (sym_primary_expression, STATE 7326),
    (sym_comptime_expression, STATE 7017), (sym_transfer_expression, STATE 7017),
    (sym_not_operator, STATE 7969), (sym_boolean_operator, STATE 7969),
    (sym_binary_operator, STATE 7017), (sym_unary_operator, STATE 7017),
    (sym_comparison_operator, STATE 7969), (sym_lambda, STATE 7969),
    (sym_assignment, STATE 12425), (sym_augmented_assignment, STATE 12425),
    (sym_pattern_list, STATE 8578), (sym_yield, STATE 12425), (sym_attribute, STATE 6836),
    (sym_subscript, STATE 6838), (sym_call, STATE 6845), (sym_mlir_type, STATE 7017),
    (sym_list, STATE 7017), (sym_set, STATE 7017), (sym_tuple, STATE 7017),
    (sym_dictionary, STATE 7017), (sym_struct_literal, STATE 7017),
    (sym_list_comprehension, STATE 7017), (sym_dictionary_comprehension, STATE 7017),
    (sym_set_comprehension, STATE 7017), (sym_generator_expression, STATE 7017),
    (sym_parenthesized_expression, STATE 7017), (sym_conditional_expression, STATE 7969),
    (sym_concatenated_string, STATE 7017), (sym_string, STATE 6751), (sym_await, STATE 7017),
    (aux_sym_module_repeat1, STATE 925), (aux_sym_decorated_definition_repeat1, STATE 3670),
    (sym_identifier, ACTIONS 9), (anon_sym_import, ACTIONS 11), (anon_sym_from, ACTIONS 13),
    (anon_sym_LPAREN, ACTIONS 15), (anon_sym_STAR, ACTIONS 17), (anon_sym_print, ACTIONS 19),
    (anon_sym_comptime, ACTIONS 99), (anon_sym_assert, ACTIONS 23),
    (anon_sym___comptime_assert, ACTIONS 25), (anon_sym_return, ACTIONS 27),
    (anon_sym_del, ACTIONS 29), (anon_sym_raise, ACTIONS 31), (anon_sym_pass, ACTIONS 33),
    (anon_sym_break, ACTIONS 35), (anon_sym_continue, ACTIONS 37),
    (anon_sym___extension, ACTIONS 101), (anon_sym___mlir_region, ACTIONS 103),
    (anon_sym_if, ACTIONS 105), (anon_sym_match, ACTIONS 107), (anon_sym_async, ACTIONS 109),
    (anon_sym_for, ACTIONS 111), (anon_sym_while, ACTIONS 113), (anon_sym_try, ACTIONS 115),
    (anon_sym_with, ACTIONS 117), (anon_sym_def, ACTIONS 119), (anon_sym_fn, ACTIONS 119),
    (anon_sym_LBRACK, ACTIONS 59), (anon_sym_LBRACE, ACTIONS 61), (anon_sym_global, ACTIONS 63),
    (anon_sym_nonlocal, ACTIONS 65), (anon_sym_exec, ACTIONS 67), (anon_sym_type, ACTIONS 69),
    (anon_sym_class, ACTIONS 121), (anon_sym_struct, ACTIONS 121), (anon_sym_mut, ACTIONS 73),
    (anon_sym_out, ACTIONS 73), (anon_sym_trait, ACTIONS 123), (anon_sym_AT, ACTIONS 77),
    (anon_sym_DASH, ACTIONS 79), (anon_sym_PLUS, ACTIONS 79), (anon_sym_ref, ACTIONS 81),
    (anon_sym_var, ACTIONS 81), (anon_sym_not, ACTIONS 83), (anon_sym_TILDE, ACTIONS 79),
    (anon_sym_lambda, ACTIONS 85), (anon_sym_yield, ACTIONS 87), (sym_ellipsis, ACTIONS 89),
    (anon_sym___mlir_type, ACTIONS 91), (sym_integer, ACTIONS 93), (sym_float, ACTIONS 89),
    (anon_sym_await, ACTIONS 95), (sym_true, ACTIONS 93), (sym_false, ACTIONS 93),
    (sym_none, ACTIONS 93), (sym_comment, ACTIONS 3), (sym_line_continuation, ACTIONS 3),
    (sym__dedent, ACTIONS 129), (sym_string_start, ACTIONS 97)]"

definition parse_table_303 :: "(nat \<times> nat) list" where "parse_table_303 = [
    (sym__statement, STATE 925), (sym__simple_statements, STATE 925),
    (sym_import_statement, STATE 11814), (sym_future_import_statement, STATE 11814),
    (sym_import_from_statement, STATE 11814), (sym_print_statement, STATE 11814),
    (sym_assert_statement, STATE 11814), (sym_comptime_assert_statement, STATE 11814),
    (sym_expression_statement, STATE 11814), (sym_tuple_expression, STATE 12425),
    (sym_named_expression, STATE 7969), (sym__named_expression_lhs, STATE 12752),
    (sym_return_statement, STATE 11814), (sym_delete_statement, STATE 11814),
    (sym_raise_statement, STATE 11814), (sym_pass_statement, STATE 11814),
    (sym_break_statement, STATE 11814), (sym_continue_statement, STATE 11814),
    (sym_extension_definition, STATE 925), (sym_mlir_region, STATE 925),
    (sym_comptime_statement, STATE 925), (sym_if_statement, STATE 925),
    (sym_match_statement, STATE 925), (sym_for_statement, STATE 925),
    (sym_while_statement, STATE 925), (sym_try_statement, STATE 925),
    (sym_with_statement, STATE 925), (sym_function_definition, STATE 925),
    (sym_global_statement, STATE 11814), (sym_nonlocal_statement, STATE 11814),
    (sym_exec_statement, STATE 11814), (sym_type_alias_statement, STATE 11814),
    (sym_parameterized_alias_statement, STATE 11814), (sym_class_definition, STATE 925),
    (sym_trait_definition, STATE 925), (sym_decorated_definition, STATE 925),
    (sym_decorator, STATE 3670), (sym_block, STATE 5705), (sym_pattern, STATE 8086),
    (sym_tuple_pattern, STATE 8101), (sym_list_pattern, STATE 8101),
    (sym_list_splat_pattern, STATE 6819), (sym_as_pattern, STATE 7969),
    (sym_expression, STATE 9883), (sym_primary_expression, STATE 7326),
    (sym_comptime_expression, STATE 7017), (sym_transfer_expression, STATE 7017),
    (sym_not_operator, STATE 7969), (sym_boolean_operator, STATE 7969),
    (sym_binary_operator, STATE 7017), (sym_unary_operator, STATE 7017),
    (sym_comparison_operator, STATE 7969), (sym_lambda, STATE 7969),
    (sym_assignment, STATE 12425), (sym_augmented_assignment, STATE 12425),
    (sym_pattern_list, STATE 8578), (sym_yield, STATE 12425), (sym_attribute, STATE 6836),
    (sym_subscript, STATE 6838), (sym_call, STATE 6845), (sym_mlir_type, STATE 7017),
    (sym_list, STATE 7017), (sym_set, STATE 7017), (sym_tuple, STATE 7017),
    (sym_dictionary, STATE 7017), (sym_struct_literal, STATE 7017),
    (sym_list_comprehension, STATE 7017), (sym_dictionary_comprehension, STATE 7017),
    (sym_set_comprehension, STATE 7017), (sym_generator_expression, STATE 7017),
    (sym_parenthesized_expression, STATE 7017), (sym_conditional_expression, STATE 7969),
    (sym_concatenated_string, STATE 7017), (sym_string, STATE 6751), (sym_await, STATE 7017),
    (aux_sym_module_repeat1, STATE 925), (aux_sym_decorated_definition_repeat1, STATE 3670),
    (sym_identifier, ACTIONS 9), (anon_sym_import, ACTIONS 11), (anon_sym_from, ACTIONS 13),
    (anon_sym_LPAREN, ACTIONS 15), (anon_sym_STAR, ACTIONS 17), (anon_sym_print, ACTIONS 19),
    (anon_sym_comptime, ACTIONS 99), (anon_sym_assert, ACTIONS 23),
    (anon_sym___comptime_assert, ACTIONS 25), (anon_sym_return, ACTIONS 27),
    (anon_sym_del, ACTIONS 29), (anon_sym_raise, ACTIONS 31), (anon_sym_pass, ACTIONS 33),
    (anon_sym_break, ACTIONS 35), (anon_sym_continue, ACTIONS 37),
    (anon_sym___extension, ACTIONS 101), (anon_sym___mlir_region, ACTIONS 103),
    (anon_sym_if, ACTIONS 105), (anon_sym_match, ACTIONS 107), (anon_sym_async, ACTIONS 109),
    (anon_sym_for, ACTIONS 111), (anon_sym_while, ACTIONS 113), (anon_sym_try, ACTIONS 115),
    (anon_sym_with, ACTIONS 117), (anon_sym_def, ACTIONS 119), (anon_sym_fn, ACTIONS 119),
    (anon_sym_LBRACK, ACTIONS 59), (anon_sym_LBRACE, ACTIONS 61), (anon_sym_global, ACTIONS 63),
    (anon_sym_nonlocal, ACTIONS 65), (anon_sym_exec, ACTIONS 67), (anon_sym_type, ACTIONS 69),
    (anon_sym_class, ACTIONS 121), (anon_sym_struct, ACTIONS 121), (anon_sym_mut, ACTIONS 73),
    (anon_sym_out, ACTIONS 73), (anon_sym_trait, ACTIONS 123), (anon_sym_AT, ACTIONS 77),
    (anon_sym_DASH, ACTIONS 79), (anon_sym_PLUS, ACTIONS 79), (anon_sym_ref, ACTIONS 81),
    (anon_sym_var, ACTIONS 81), (anon_sym_not, ACTIONS 83), (anon_sym_TILDE, ACTIONS 79),
    (anon_sym_lambda, ACTIONS 85), (anon_sym_yield, ACTIONS 87), (sym_ellipsis, ACTIONS 89),
    (anon_sym___mlir_type, ACTIONS 91), (sym_integer, ACTIONS 93), (sym_float, ACTIONS 89),
    (anon_sym_await, ACTIONS 95), (sym_true, ACTIONS 93), (sym_false, ACTIONS 93),
    (sym_none, ACTIONS 93), (sym_comment, ACTIONS 3), (sym_line_continuation, ACTIONS 3),
    (sym__dedent, ACTIONS 129), (sym_string_start, ACTIONS 97)]"

definition parse_table_304 :: "(nat \<times> nat) list" where "parse_table_304 = [
    (sym__statement, STATE 925), (sym__simple_statements, STATE 925),
    (sym_import_statement, STATE 11814), (sym_future_import_statement, STATE 11814),
    (sym_import_from_statement, STATE 11814), (sym_print_statement, STATE 11814),
    (sym_assert_statement, STATE 11814), (sym_comptime_assert_statement, STATE 11814),
    (sym_expression_statement, STATE 11814), (sym_tuple_expression, STATE 12425),
    (sym_named_expression, STATE 7969), (sym__named_expression_lhs, STATE 12752),
    (sym_return_statement, STATE 11814), (sym_delete_statement, STATE 11814),
    (sym_raise_statement, STATE 11814), (sym_pass_statement, STATE 11814),
    (sym_break_statement, STATE 11814), (sym_continue_statement, STATE 11814),
    (sym_extension_definition, STATE 925), (sym_mlir_region, STATE 925),
    (sym_comptime_statement, STATE 925), (sym_if_statement, STATE 925),
    (sym_match_statement, STATE 925), (sym_for_statement, STATE 925),
    (sym_while_statement, STATE 925), (sym_try_statement, STATE 925),
    (sym_with_statement, STATE 925), (sym_function_definition, STATE 925),
    (sym_global_statement, STATE 11814), (sym_nonlocal_statement, STATE 11814),
    (sym_exec_statement, STATE 11814), (sym_type_alias_statement, STATE 11814),
    (sym_parameterized_alias_statement, STATE 11814), (sym_class_definition, STATE 925),
    (sym_trait_definition, STATE 925), (sym_decorated_definition, STATE 925),
    (sym_decorator, STATE 3670), (sym_block, STATE 5710), (sym_pattern, STATE 8086),
    (sym_tuple_pattern, STATE 8101), (sym_list_pattern, STATE 8101),
    (sym_list_splat_pattern, STATE 6819), (sym_as_pattern, STATE 7969),
    (sym_expression, STATE 9883), (sym_primary_expression, STATE 7326),
    (sym_comptime_expression, STATE 7017), (sym_transfer_expression, STATE 7017),
    (sym_not_operator, STATE 7969), (sym_boolean_operator, STATE 7969),
    (sym_binary_operator, STATE 7017), (sym_unary_operator, STATE 7017),
    (sym_comparison_operator, STATE 7969), (sym_lambda, STATE 7969),
    (sym_assignment, STATE 12425), (sym_augmented_assignment, STATE 12425),
    (sym_pattern_list, STATE 8578), (sym_yield, STATE 12425), (sym_attribute, STATE 6836),
    (sym_subscript, STATE 6838), (sym_call, STATE 6845), (sym_mlir_type, STATE 7017),
    (sym_list, STATE 7017), (sym_set, STATE 7017), (sym_tuple, STATE 7017),
    (sym_dictionary, STATE 7017), (sym_struct_literal, STATE 7017),
    (sym_list_comprehension, STATE 7017), (sym_dictionary_comprehension, STATE 7017),
    (sym_set_comprehension, STATE 7017), (sym_generator_expression, STATE 7017),
    (sym_parenthesized_expression, STATE 7017), (sym_conditional_expression, STATE 7969),
    (sym_concatenated_string, STATE 7017), (sym_string, STATE 6751), (sym_await, STATE 7017),
    (aux_sym_module_repeat1, STATE 925), (aux_sym_decorated_definition_repeat1, STATE 3670),
    (sym_identifier, ACTIONS 9), (anon_sym_import, ACTIONS 11), (anon_sym_from, ACTIONS 13),
    (anon_sym_LPAREN, ACTIONS 15), (anon_sym_STAR, ACTIONS 17), (anon_sym_print, ACTIONS 19),
    (anon_sym_comptime, ACTIONS 99), (anon_sym_assert, ACTIONS 23),
    (anon_sym___comptime_assert, ACTIONS 25), (anon_sym_return, ACTIONS 27),
    (anon_sym_del, ACTIONS 29), (anon_sym_raise, ACTIONS 31), (anon_sym_pass, ACTIONS 33),
    (anon_sym_break, ACTIONS 35), (anon_sym_continue, ACTIONS 37),
    (anon_sym___extension, ACTIONS 101), (anon_sym___mlir_region, ACTIONS 103),
    (anon_sym_if, ACTIONS 105), (anon_sym_match, ACTIONS 107), (anon_sym_async, ACTIONS 109),
    (anon_sym_for, ACTIONS 111), (anon_sym_while, ACTIONS 113), (anon_sym_try, ACTIONS 115),
    (anon_sym_with, ACTIONS 117), (anon_sym_def, ACTIONS 119), (anon_sym_fn, ACTIONS 119),
    (anon_sym_LBRACK, ACTIONS 59), (anon_sym_LBRACE, ACTIONS 61), (anon_sym_global, ACTIONS 63),
    (anon_sym_nonlocal, ACTIONS 65), (anon_sym_exec, ACTIONS 67), (anon_sym_type, ACTIONS 69),
    (anon_sym_class, ACTIONS 121), (anon_sym_struct, ACTIONS 121), (anon_sym_mut, ACTIONS 73),
    (anon_sym_out, ACTIONS 73), (anon_sym_trait, ACTIONS 123), (anon_sym_AT, ACTIONS 77),
    (anon_sym_DASH, ACTIONS 79), (anon_sym_PLUS, ACTIONS 79), (anon_sym_ref, ACTIONS 81),
    (anon_sym_var, ACTIONS 81), (anon_sym_not, ACTIONS 83), (anon_sym_TILDE, ACTIONS 79),
    (anon_sym_lambda, ACTIONS 85), (anon_sym_yield, ACTIONS 87), (sym_ellipsis, ACTIONS 89),
    (anon_sym___mlir_type, ACTIONS 91), (sym_integer, ACTIONS 93), (sym_float, ACTIONS 89),
    (anon_sym_await, ACTIONS 95), (sym_true, ACTIONS 93), (sym_false, ACTIONS 93),
    (sym_none, ACTIONS 93), (sym_comment, ACTIONS 3), (sym_line_continuation, ACTIONS 3),
    (sym__dedent, ACTIONS 129), (sym_string_start, ACTIONS 97)]"

definition parse_table_305 :: "(nat \<times> nat) list" where "parse_table_305 = [
    (sym__statement, STATE 925), (sym__simple_statements, STATE 925),
    (sym_import_statement, STATE 11814), (sym_future_import_statement, STATE 11814),
    (sym_import_from_statement, STATE 11814), (sym_print_statement, STATE 11814),
    (sym_assert_statement, STATE 11814), (sym_comptime_assert_statement, STATE 11814),
    (sym_expression_statement, STATE 11814), (sym_tuple_expression, STATE 12425),
    (sym_named_expression, STATE 7969), (sym__named_expression_lhs, STATE 12752),
    (sym_return_statement, STATE 11814), (sym_delete_statement, STATE 11814),
    (sym_raise_statement, STATE 11814), (sym_pass_statement, STATE 11814),
    (sym_break_statement, STATE 11814), (sym_continue_statement, STATE 11814),
    (sym_extension_definition, STATE 925), (sym_mlir_region, STATE 925),
    (sym_comptime_statement, STATE 925), (sym_if_statement, STATE 925),
    (sym_match_statement, STATE 925), (sym_for_statement, STATE 925),
    (sym_while_statement, STATE 925), (sym_try_statement, STATE 925),
    (sym_with_statement, STATE 925), (sym_function_definition, STATE 925),
    (sym_global_statement, STATE 11814), (sym_nonlocal_statement, STATE 11814),
    (sym_exec_statement, STATE 11814), (sym_type_alias_statement, STATE 11814),
    (sym_parameterized_alias_statement, STATE 11814), (sym_class_definition, STATE 925),
    (sym_trait_definition, STATE 925), (sym_decorated_definition, STATE 925),
    (sym_decorator, STATE 3670), (sym_block, STATE 5715), (sym_pattern, STATE 8086),
    (sym_tuple_pattern, STATE 8101), (sym_list_pattern, STATE 8101),
    (sym_list_splat_pattern, STATE 6819), (sym_as_pattern, STATE 7969),
    (sym_expression, STATE 9883), (sym_primary_expression, STATE 7326),
    (sym_comptime_expression, STATE 7017), (sym_transfer_expression, STATE 7017),
    (sym_not_operator, STATE 7969), (sym_boolean_operator, STATE 7969),
    (sym_binary_operator, STATE 7017), (sym_unary_operator, STATE 7017),
    (sym_comparison_operator, STATE 7969), (sym_lambda, STATE 7969),
    (sym_assignment, STATE 12425), (sym_augmented_assignment, STATE 12425),
    (sym_pattern_list, STATE 8578), (sym_yield, STATE 12425), (sym_attribute, STATE 6836),
    (sym_subscript, STATE 6838), (sym_call, STATE 6845), (sym_mlir_type, STATE 7017),
    (sym_list, STATE 7017), (sym_set, STATE 7017), (sym_tuple, STATE 7017),
    (sym_dictionary, STATE 7017), (sym_struct_literal, STATE 7017),
    (sym_list_comprehension, STATE 7017), (sym_dictionary_comprehension, STATE 7017),
    (sym_set_comprehension, STATE 7017), (sym_generator_expression, STATE 7017),
    (sym_parenthesized_expression, STATE 7017), (sym_conditional_expression, STATE 7969),
    (sym_concatenated_string, STATE 7017), (sym_string, STATE 6751), (sym_await, STATE 7017),
    (aux_sym_module_repeat1, STATE 925), (aux_sym_decorated_definition_repeat1, STATE 3670),
    (sym_identifier, ACTIONS 9), (anon_sym_import, ACTIONS 11), (anon_sym_from, ACTIONS 13),
    (anon_sym_LPAREN, ACTIONS 15), (anon_sym_STAR, ACTIONS 17), (anon_sym_print, ACTIONS 19),
    (anon_sym_comptime, ACTIONS 99), (anon_sym_assert, ACTIONS 23),
    (anon_sym___comptime_assert, ACTIONS 25), (anon_sym_return, ACTIONS 27),
    (anon_sym_del, ACTIONS 29), (anon_sym_raise, ACTIONS 31), (anon_sym_pass, ACTIONS 33),
    (anon_sym_break, ACTIONS 35), (anon_sym_continue, ACTIONS 37),
    (anon_sym___extension, ACTIONS 101), (anon_sym___mlir_region, ACTIONS 103),
    (anon_sym_if, ACTIONS 105), (anon_sym_match, ACTIONS 107), (anon_sym_async, ACTIONS 109),
    (anon_sym_for, ACTIONS 111), (anon_sym_while, ACTIONS 113), (anon_sym_try, ACTIONS 115),
    (anon_sym_with, ACTIONS 117), (anon_sym_def, ACTIONS 119), (anon_sym_fn, ACTIONS 119),
    (anon_sym_LBRACK, ACTIONS 59), (anon_sym_LBRACE, ACTIONS 61), (anon_sym_global, ACTIONS 63),
    (anon_sym_nonlocal, ACTIONS 65), (anon_sym_exec, ACTIONS 67), (anon_sym_type, ACTIONS 69),
    (anon_sym_class, ACTIONS 121), (anon_sym_struct, ACTIONS 121), (anon_sym_mut, ACTIONS 73),
    (anon_sym_out, ACTIONS 73), (anon_sym_trait, ACTIONS 123), (anon_sym_AT, ACTIONS 77),
    (anon_sym_DASH, ACTIONS 79), (anon_sym_PLUS, ACTIONS 79), (anon_sym_ref, ACTIONS 81),
    (anon_sym_var, ACTIONS 81), (anon_sym_not, ACTIONS 83), (anon_sym_TILDE, ACTIONS 79),
    (anon_sym_lambda, ACTIONS 85), (anon_sym_yield, ACTIONS 87), (sym_ellipsis, ACTIONS 89),
    (anon_sym___mlir_type, ACTIONS 91), (sym_integer, ACTIONS 93), (sym_float, ACTIONS 89),
    (anon_sym_await, ACTIONS 95), (sym_true, ACTIONS 93), (sym_false, ACTIONS 93),
    (sym_none, ACTIONS 93), (sym_comment, ACTIONS 3), (sym_line_continuation, ACTIONS 3),
    (sym__dedent, ACTIONS 129), (sym_string_start, ACTIONS 97)]"

definition parse_table_306 :: "(nat \<times> nat) list" where "parse_table_306 = [
    (sym__statement, STATE 925), (sym__simple_statements, STATE 925),
    (sym_import_statement, STATE 11814), (sym_future_import_statement, STATE 11814),
    (sym_import_from_statement, STATE 11814), (sym_print_statement, STATE 11814),
    (sym_assert_statement, STATE 11814), (sym_comptime_assert_statement, STATE 11814),
    (sym_expression_statement, STATE 11814), (sym_tuple_expression, STATE 12425),
    (sym_named_expression, STATE 7969), (sym__named_expression_lhs, STATE 12752),
    (sym_return_statement, STATE 11814), (sym_delete_statement, STATE 11814),
    (sym_raise_statement, STATE 11814), (sym_pass_statement, STATE 11814),
    (sym_break_statement, STATE 11814), (sym_continue_statement, STATE 11814),
    (sym_extension_definition, STATE 925), (sym_mlir_region, STATE 925),
    (sym_comptime_statement, STATE 925), (sym_if_statement, STATE 925),
    (sym_match_statement, STATE 925), (sym_for_statement, STATE 925),
    (sym_while_statement, STATE 925), (sym_try_statement, STATE 925),
    (sym_with_statement, STATE 925), (sym_function_definition, STATE 925),
    (sym_global_statement, STATE 11814), (sym_nonlocal_statement, STATE 11814),
    (sym_exec_statement, STATE 11814), (sym_type_alias_statement, STATE 11814),
    (sym_parameterized_alias_statement, STATE 11814), (sym_class_definition, STATE 925),
    (sym_trait_definition, STATE 925), (sym_decorated_definition, STATE 925),
    (sym_decorator, STATE 3670), (sym_block, STATE 5719), (sym_pattern, STATE 8086),
    (sym_tuple_pattern, STATE 8101), (sym_list_pattern, STATE 8101),
    (sym_list_splat_pattern, STATE 6819), (sym_as_pattern, STATE 7969),
    (sym_expression, STATE 9883), (sym_primary_expression, STATE 7326),
    (sym_comptime_expression, STATE 7017), (sym_transfer_expression, STATE 7017),
    (sym_not_operator, STATE 7969), (sym_boolean_operator, STATE 7969),
    (sym_binary_operator, STATE 7017), (sym_unary_operator, STATE 7017),
    (sym_comparison_operator, STATE 7969), (sym_lambda, STATE 7969),
    (sym_assignment, STATE 12425), (sym_augmented_assignment, STATE 12425),
    (sym_pattern_list, STATE 8578), (sym_yield, STATE 12425), (sym_attribute, STATE 6836),
    (sym_subscript, STATE 6838), (sym_call, STATE 6845), (sym_mlir_type, STATE 7017),
    (sym_list, STATE 7017), (sym_set, STATE 7017), (sym_tuple, STATE 7017),
    (sym_dictionary, STATE 7017), (sym_struct_literal, STATE 7017),
    (sym_list_comprehension, STATE 7017), (sym_dictionary_comprehension, STATE 7017),
    (sym_set_comprehension, STATE 7017), (sym_generator_expression, STATE 7017),
    (sym_parenthesized_expression, STATE 7017), (sym_conditional_expression, STATE 7969),
    (sym_concatenated_string, STATE 7017), (sym_string, STATE 6751), (sym_await, STATE 7017),
    (aux_sym_module_repeat1, STATE 925), (aux_sym_decorated_definition_repeat1, STATE 3670),
    (sym_identifier, ACTIONS 9), (anon_sym_import, ACTIONS 11), (anon_sym_from, ACTIONS 13),
    (anon_sym_LPAREN, ACTIONS 15), (anon_sym_STAR, ACTIONS 17), (anon_sym_print, ACTIONS 19),
    (anon_sym_comptime, ACTIONS 99), (anon_sym_assert, ACTIONS 23),
    (anon_sym___comptime_assert, ACTIONS 25), (anon_sym_return, ACTIONS 27),
    (anon_sym_del, ACTIONS 29), (anon_sym_raise, ACTIONS 31), (anon_sym_pass, ACTIONS 33),
    (anon_sym_break, ACTIONS 35), (anon_sym_continue, ACTIONS 37),
    (anon_sym___extension, ACTIONS 101), (anon_sym___mlir_region, ACTIONS 103),
    (anon_sym_if, ACTIONS 105), (anon_sym_match, ACTIONS 107), (anon_sym_async, ACTIONS 109),
    (anon_sym_for, ACTIONS 111), (anon_sym_while, ACTIONS 113), (anon_sym_try, ACTIONS 115),
    (anon_sym_with, ACTIONS 117), (anon_sym_def, ACTIONS 119), (anon_sym_fn, ACTIONS 119),
    (anon_sym_LBRACK, ACTIONS 59), (anon_sym_LBRACE, ACTIONS 61), (anon_sym_global, ACTIONS 63),
    (anon_sym_nonlocal, ACTIONS 65), (anon_sym_exec, ACTIONS 67), (anon_sym_type, ACTIONS 69),
    (anon_sym_class, ACTIONS 121), (anon_sym_struct, ACTIONS 121), (anon_sym_mut, ACTIONS 73),
    (anon_sym_out, ACTIONS 73), (anon_sym_trait, ACTIONS 123), (anon_sym_AT, ACTIONS 77),
    (anon_sym_DASH, ACTIONS 79), (anon_sym_PLUS, ACTIONS 79), (anon_sym_ref, ACTIONS 81),
    (anon_sym_var, ACTIONS 81), (anon_sym_not, ACTIONS 83), (anon_sym_TILDE, ACTIONS 79),
    (anon_sym_lambda, ACTIONS 85), (anon_sym_yield, ACTIONS 87), (sym_ellipsis, ACTIONS 89),
    (anon_sym___mlir_type, ACTIONS 91), (sym_integer, ACTIONS 93), (sym_float, ACTIONS 89),
    (anon_sym_await, ACTIONS 95), (sym_true, ACTIONS 93), (sym_false, ACTIONS 93),
    (sym_none, ACTIONS 93), (sym_comment, ACTIONS 3), (sym_line_continuation, ACTIONS 3),
    (sym__dedent, ACTIONS 129), (sym_string_start, ACTIONS 97)]"

definition parse_table_307 :: "(nat \<times> nat) list" where "parse_table_307 = [
    (sym__statement, STATE 925), (sym__simple_statements, STATE 925),
    (sym_import_statement, STATE 11814), (sym_future_import_statement, STATE 11814),
    (sym_import_from_statement, STATE 11814), (sym_print_statement, STATE 11814),
    (sym_assert_statement, STATE 11814), (sym_comptime_assert_statement, STATE 11814),
    (sym_expression_statement, STATE 11814), (sym_tuple_expression, STATE 12425),
    (sym_named_expression, STATE 7969), (sym__named_expression_lhs, STATE 12752),
    (sym_return_statement, STATE 11814), (sym_delete_statement, STATE 11814),
    (sym_raise_statement, STATE 11814), (sym_pass_statement, STATE 11814),
    (sym_break_statement, STATE 11814), (sym_continue_statement, STATE 11814),
    (sym_extension_definition, STATE 925), (sym_mlir_region, STATE 925),
    (sym_comptime_statement, STATE 925), (sym_if_statement, STATE 925),
    (sym_match_statement, STATE 925), (sym_for_statement, STATE 925),
    (sym_while_statement, STATE 925), (sym_try_statement, STATE 925),
    (sym_with_statement, STATE 925), (sym_function_definition, STATE 925),
    (sym_global_statement, STATE 11814), (sym_nonlocal_statement, STATE 11814),
    (sym_exec_statement, STATE 11814), (sym_type_alias_statement, STATE 11814),
    (sym_parameterized_alias_statement, STATE 11814), (sym_class_definition, STATE 925),
    (sym_trait_definition, STATE 925), (sym_decorated_definition, STATE 925),
    (sym_decorator, STATE 3670), (sym_block, STATE 5720), (sym_pattern, STATE 8086),
    (sym_tuple_pattern, STATE 8101), (sym_list_pattern, STATE 8101),
    (sym_list_splat_pattern, STATE 6819), (sym_as_pattern, STATE 7969),
    (sym_expression, STATE 9883), (sym_primary_expression, STATE 7326),
    (sym_comptime_expression, STATE 7017), (sym_transfer_expression, STATE 7017),
    (sym_not_operator, STATE 7969), (sym_boolean_operator, STATE 7969),
    (sym_binary_operator, STATE 7017), (sym_unary_operator, STATE 7017),
    (sym_comparison_operator, STATE 7969), (sym_lambda, STATE 7969),
    (sym_assignment, STATE 12425), (sym_augmented_assignment, STATE 12425),
    (sym_pattern_list, STATE 8578), (sym_yield, STATE 12425), (sym_attribute, STATE 6836),
    (sym_subscript, STATE 6838), (sym_call, STATE 6845), (sym_mlir_type, STATE 7017),
    (sym_list, STATE 7017), (sym_set, STATE 7017), (sym_tuple, STATE 7017),
    (sym_dictionary, STATE 7017), (sym_struct_literal, STATE 7017),
    (sym_list_comprehension, STATE 7017), (sym_dictionary_comprehension, STATE 7017),
    (sym_set_comprehension, STATE 7017), (sym_generator_expression, STATE 7017),
    (sym_parenthesized_expression, STATE 7017), (sym_conditional_expression, STATE 7969),
    (sym_concatenated_string, STATE 7017), (sym_string, STATE 6751), (sym_await, STATE 7017),
    (aux_sym_module_repeat1, STATE 925), (aux_sym_decorated_definition_repeat1, STATE 3670),
    (sym_identifier, ACTIONS 9), (anon_sym_import, ACTIONS 11), (anon_sym_from, ACTIONS 13),
    (anon_sym_LPAREN, ACTIONS 15), (anon_sym_STAR, ACTIONS 17), (anon_sym_print, ACTIONS 19),
    (anon_sym_comptime, ACTIONS 99), (anon_sym_assert, ACTIONS 23),
    (anon_sym___comptime_assert, ACTIONS 25), (anon_sym_return, ACTIONS 27),
    (anon_sym_del, ACTIONS 29), (anon_sym_raise, ACTIONS 31), (anon_sym_pass, ACTIONS 33),
    (anon_sym_break, ACTIONS 35), (anon_sym_continue, ACTIONS 37),
    (anon_sym___extension, ACTIONS 101), (anon_sym___mlir_region, ACTIONS 103),
    (anon_sym_if, ACTIONS 105), (anon_sym_match, ACTIONS 107), (anon_sym_async, ACTIONS 109),
    (anon_sym_for, ACTIONS 111), (anon_sym_while, ACTIONS 113), (anon_sym_try, ACTIONS 115),
    (anon_sym_with, ACTIONS 117), (anon_sym_def, ACTIONS 119), (anon_sym_fn, ACTIONS 119),
    (anon_sym_LBRACK, ACTIONS 59), (anon_sym_LBRACE, ACTIONS 61), (anon_sym_global, ACTIONS 63),
    (anon_sym_nonlocal, ACTIONS 65), (anon_sym_exec, ACTIONS 67), (anon_sym_type, ACTIONS 69),
    (anon_sym_class, ACTIONS 121), (anon_sym_struct, ACTIONS 121), (anon_sym_mut, ACTIONS 73),
    (anon_sym_out, ACTIONS 73), (anon_sym_trait, ACTIONS 123), (anon_sym_AT, ACTIONS 77),
    (anon_sym_DASH, ACTIONS 79), (anon_sym_PLUS, ACTIONS 79), (anon_sym_ref, ACTIONS 81),
    (anon_sym_var, ACTIONS 81), (anon_sym_not, ACTIONS 83), (anon_sym_TILDE, ACTIONS 79),
    (anon_sym_lambda, ACTIONS 85), (anon_sym_yield, ACTIONS 87), (sym_ellipsis, ACTIONS 89),
    (anon_sym___mlir_type, ACTIONS 91), (sym_integer, ACTIONS 93), (sym_float, ACTIONS 89),
    (anon_sym_await, ACTIONS 95), (sym_true, ACTIONS 93), (sym_false, ACTIONS 93),
    (sym_none, ACTIONS 93), (sym_comment, ACTIONS 3), (sym_line_continuation, ACTIONS 3),
    (sym__dedent, ACTIONS 129), (sym_string_start, ACTIONS 97)]"

definition parse_table_308 :: "(nat \<times> nat) list" where "parse_table_308 = [
    (sym__statement, STATE 925), (sym__simple_statements, STATE 925),
    (sym_import_statement, STATE 11814), (sym_future_import_statement, STATE 11814),
    (sym_import_from_statement, STATE 11814), (sym_print_statement, STATE 11814),
    (sym_assert_statement, STATE 11814), (sym_comptime_assert_statement, STATE 11814),
    (sym_expression_statement, STATE 11814), (sym_tuple_expression, STATE 12425),
    (sym_named_expression, STATE 7969), (sym__named_expression_lhs, STATE 12752),
    (sym_return_statement, STATE 11814), (sym_delete_statement, STATE 11814),
    (sym_raise_statement, STATE 11814), (sym_pass_statement, STATE 11814),
    (sym_break_statement, STATE 11814), (sym_continue_statement, STATE 11814),
    (sym_extension_definition, STATE 925), (sym_mlir_region, STATE 925),
    (sym_comptime_statement, STATE 925), (sym_if_statement, STATE 925),
    (sym_match_statement, STATE 925), (sym_for_statement, STATE 925),
    (sym_while_statement, STATE 925), (sym_try_statement, STATE 925),
    (sym_with_statement, STATE 925), (sym_function_definition, STATE 925),
    (sym_global_statement, STATE 11814), (sym_nonlocal_statement, STATE 11814),
    (sym_exec_statement, STATE 11814), (sym_type_alias_statement, STATE 11814),
    (sym_parameterized_alias_statement, STATE 11814), (sym_class_definition, STATE 925),
    (sym_trait_definition, STATE 925), (sym_decorated_definition, STATE 925),
    (sym_decorator, STATE 3670), (sym_block, STATE 5723), (sym_pattern, STATE 8086),
    (sym_tuple_pattern, STATE 8101), (sym_list_pattern, STATE 8101),
    (sym_list_splat_pattern, STATE 6819), (sym_as_pattern, STATE 7969),
    (sym_expression, STATE 9883), (sym_primary_expression, STATE 7326),
    (sym_comptime_expression, STATE 7017), (sym_transfer_expression, STATE 7017),
    (sym_not_operator, STATE 7969), (sym_boolean_operator, STATE 7969),
    (sym_binary_operator, STATE 7017), (sym_unary_operator, STATE 7017),
    (sym_comparison_operator, STATE 7969), (sym_lambda, STATE 7969),
    (sym_assignment, STATE 12425), (sym_augmented_assignment, STATE 12425),
    (sym_pattern_list, STATE 8578), (sym_yield, STATE 12425), (sym_attribute, STATE 6836),
    (sym_subscript, STATE 6838), (sym_call, STATE 6845), (sym_mlir_type, STATE 7017),
    (sym_list, STATE 7017), (sym_set, STATE 7017), (sym_tuple, STATE 7017),
    (sym_dictionary, STATE 7017), (sym_struct_literal, STATE 7017),
    (sym_list_comprehension, STATE 7017), (sym_dictionary_comprehension, STATE 7017),
    (sym_set_comprehension, STATE 7017), (sym_generator_expression, STATE 7017),
    (sym_parenthesized_expression, STATE 7017), (sym_conditional_expression, STATE 7969),
    (sym_concatenated_string, STATE 7017), (sym_string, STATE 6751), (sym_await, STATE 7017),
    (aux_sym_module_repeat1, STATE 925), (aux_sym_decorated_definition_repeat1, STATE 3670),
    (sym_identifier, ACTIONS 9), (anon_sym_import, ACTIONS 11), (anon_sym_from, ACTIONS 13),
    (anon_sym_LPAREN, ACTIONS 15), (anon_sym_STAR, ACTIONS 17), (anon_sym_print, ACTIONS 19),
    (anon_sym_comptime, ACTIONS 99), (anon_sym_assert, ACTIONS 23),
    (anon_sym___comptime_assert, ACTIONS 25), (anon_sym_return, ACTIONS 27),
    (anon_sym_del, ACTIONS 29), (anon_sym_raise, ACTIONS 31), (anon_sym_pass, ACTIONS 33),
    (anon_sym_break, ACTIONS 35), (anon_sym_continue, ACTIONS 37),
    (anon_sym___extension, ACTIONS 101), (anon_sym___mlir_region, ACTIONS 103),
    (anon_sym_if, ACTIONS 105), (anon_sym_match, ACTIONS 107), (anon_sym_async, ACTIONS 109),
    (anon_sym_for, ACTIONS 111), (anon_sym_while, ACTIONS 113), (anon_sym_try, ACTIONS 115),
    (anon_sym_with, ACTIONS 117), (anon_sym_def, ACTIONS 119), (anon_sym_fn, ACTIONS 119),
    (anon_sym_LBRACK, ACTIONS 59), (anon_sym_LBRACE, ACTIONS 61), (anon_sym_global, ACTIONS 63),
    (anon_sym_nonlocal, ACTIONS 65), (anon_sym_exec, ACTIONS 67), (anon_sym_type, ACTIONS 69),
    (anon_sym_class, ACTIONS 121), (anon_sym_struct, ACTIONS 121), (anon_sym_mut, ACTIONS 73),
    (anon_sym_out, ACTIONS 73), (anon_sym_trait, ACTIONS 123), (anon_sym_AT, ACTIONS 77),
    (anon_sym_DASH, ACTIONS 79), (anon_sym_PLUS, ACTIONS 79), (anon_sym_ref, ACTIONS 81),
    (anon_sym_var, ACTIONS 81), (anon_sym_not, ACTIONS 83), (anon_sym_TILDE, ACTIONS 79),
    (anon_sym_lambda, ACTIONS 85), (anon_sym_yield, ACTIONS 87), (sym_ellipsis, ACTIONS 89),
    (anon_sym___mlir_type, ACTIONS 91), (sym_integer, ACTIONS 93), (sym_float, ACTIONS 89),
    (anon_sym_await, ACTIONS 95), (sym_true, ACTIONS 93), (sym_false, ACTIONS 93),
    (sym_none, ACTIONS 93), (sym_comment, ACTIONS 3), (sym_line_continuation, ACTIONS 3),
    (sym__dedent, ACTIONS 129), (sym_string_start, ACTIONS 97)]"

definition parse_table_309 :: "(nat \<times> nat) list" where "parse_table_309 = [
    (sym__statement, STATE 925), (sym__simple_statements, STATE 925),
    (sym_import_statement, STATE 11814), (sym_future_import_statement, STATE 11814),
    (sym_import_from_statement, STATE 11814), (sym_print_statement, STATE 11814),
    (sym_assert_statement, STATE 11814), (sym_comptime_assert_statement, STATE 11814),
    (sym_expression_statement, STATE 11814), (sym_tuple_expression, STATE 12425),
    (sym_named_expression, STATE 7969), (sym__named_expression_lhs, STATE 12752),
    (sym_return_statement, STATE 11814), (sym_delete_statement, STATE 11814),
    (sym_raise_statement, STATE 11814), (sym_pass_statement, STATE 11814),
    (sym_break_statement, STATE 11814), (sym_continue_statement, STATE 11814),
    (sym_extension_definition, STATE 925), (sym_mlir_region, STATE 925),
    (sym_comptime_statement, STATE 925), (sym_if_statement, STATE 925),
    (sym_match_statement, STATE 925), (sym_for_statement, STATE 925),
    (sym_while_statement, STATE 925), (sym_try_statement, STATE 925),
    (sym_with_statement, STATE 925), (sym_function_definition, STATE 925),
    (sym_global_statement, STATE 11814), (sym_nonlocal_statement, STATE 11814),
    (sym_exec_statement, STATE 11814), (sym_type_alias_statement, STATE 11814),
    (sym_parameterized_alias_statement, STATE 11814), (sym_class_definition, STATE 925),
    (sym_trait_definition, STATE 925), (sym_decorated_definition, STATE 925),
    (sym_decorator, STATE 3670), (sym_block, STATE 5728), (sym_pattern, STATE 8086),
    (sym_tuple_pattern, STATE 8101), (sym_list_pattern, STATE 8101),
    (sym_list_splat_pattern, STATE 6819), (sym_as_pattern, STATE 7969),
    (sym_expression, STATE 9883), (sym_primary_expression, STATE 7326),
    (sym_comptime_expression, STATE 7017), (sym_transfer_expression, STATE 7017),
    (sym_not_operator, STATE 7969), (sym_boolean_operator, STATE 7969),
    (sym_binary_operator, STATE 7017), (sym_unary_operator, STATE 7017),
    (sym_comparison_operator, STATE 7969), (sym_lambda, STATE 7969),
    (sym_assignment, STATE 12425), (sym_augmented_assignment, STATE 12425),
    (sym_pattern_list, STATE 8578), (sym_yield, STATE 12425), (sym_attribute, STATE 6836),
    (sym_subscript, STATE 6838), (sym_call, STATE 6845), (sym_mlir_type, STATE 7017),
    (sym_list, STATE 7017), (sym_set, STATE 7017), (sym_tuple, STATE 7017),
    (sym_dictionary, STATE 7017), (sym_struct_literal, STATE 7017),
    (sym_list_comprehension, STATE 7017), (sym_dictionary_comprehension, STATE 7017),
    (sym_set_comprehension, STATE 7017), (sym_generator_expression, STATE 7017),
    (sym_parenthesized_expression, STATE 7017), (sym_conditional_expression, STATE 7969),
    (sym_concatenated_string, STATE 7017), (sym_string, STATE 6751), (sym_await, STATE 7017),
    (aux_sym_module_repeat1, STATE 925), (aux_sym_decorated_definition_repeat1, STATE 3670),
    (sym_identifier, ACTIONS 9), (anon_sym_import, ACTIONS 11), (anon_sym_from, ACTIONS 13),
    (anon_sym_LPAREN, ACTIONS 15), (anon_sym_STAR, ACTIONS 17), (anon_sym_print, ACTIONS 19),
    (anon_sym_comptime, ACTIONS 99), (anon_sym_assert, ACTIONS 23),
    (anon_sym___comptime_assert, ACTIONS 25), (anon_sym_return, ACTIONS 27),
    (anon_sym_del, ACTIONS 29), (anon_sym_raise, ACTIONS 31), (anon_sym_pass, ACTIONS 33),
    (anon_sym_break, ACTIONS 35), (anon_sym_continue, ACTIONS 37),
    (anon_sym___extension, ACTIONS 101), (anon_sym___mlir_region, ACTIONS 103),
    (anon_sym_if, ACTIONS 105), (anon_sym_match, ACTIONS 107), (anon_sym_async, ACTIONS 109),
    (anon_sym_for, ACTIONS 111), (anon_sym_while, ACTIONS 113), (anon_sym_try, ACTIONS 115),
    (anon_sym_with, ACTIONS 117), (anon_sym_def, ACTIONS 119), (anon_sym_fn, ACTIONS 119),
    (anon_sym_LBRACK, ACTIONS 59), (anon_sym_LBRACE, ACTIONS 61), (anon_sym_global, ACTIONS 63),
    (anon_sym_nonlocal, ACTIONS 65), (anon_sym_exec, ACTIONS 67), (anon_sym_type, ACTIONS 69),
    (anon_sym_class, ACTIONS 121), (anon_sym_struct, ACTIONS 121), (anon_sym_mut, ACTIONS 73),
    (anon_sym_out, ACTIONS 73), (anon_sym_trait, ACTIONS 123), (anon_sym_AT, ACTIONS 77),
    (anon_sym_DASH, ACTIONS 79), (anon_sym_PLUS, ACTIONS 79), (anon_sym_ref, ACTIONS 81),
    (anon_sym_var, ACTIONS 81), (anon_sym_not, ACTIONS 83), (anon_sym_TILDE, ACTIONS 79),
    (anon_sym_lambda, ACTIONS 85), (anon_sym_yield, ACTIONS 87), (sym_ellipsis, ACTIONS 89),
    (anon_sym___mlir_type, ACTIONS 91), (sym_integer, ACTIONS 93), (sym_float, ACTIONS 89),
    (anon_sym_await, ACTIONS 95), (sym_true, ACTIONS 93), (sym_false, ACTIONS 93),
    (sym_none, ACTIONS 93), (sym_comment, ACTIONS 3), (sym_line_continuation, ACTIONS 3),
    (sym__dedent, ACTIONS 129), (sym_string_start, ACTIONS 97)]"

definition parse_table_310 :: "(nat \<times> nat) list" where "parse_table_310 = [
    (sym__statement, STATE 925), (sym__simple_statements, STATE 925),
    (sym_import_statement, STATE 11814), (sym_future_import_statement, STATE 11814),
    (sym_import_from_statement, STATE 11814), (sym_print_statement, STATE 11814),
    (sym_assert_statement, STATE 11814), (sym_comptime_assert_statement, STATE 11814),
    (sym_expression_statement, STATE 11814), (sym_tuple_expression, STATE 12425),
    (sym_named_expression, STATE 7969), (sym__named_expression_lhs, STATE 12752),
    (sym_return_statement, STATE 11814), (sym_delete_statement, STATE 11814),
    (sym_raise_statement, STATE 11814), (sym_pass_statement, STATE 11814),
    (sym_break_statement, STATE 11814), (sym_continue_statement, STATE 11814),
    (sym_extension_definition, STATE 925), (sym_mlir_region, STATE 925),
    (sym_comptime_statement, STATE 925), (sym_if_statement, STATE 925),
    (sym_match_statement, STATE 925), (sym_for_statement, STATE 925),
    (sym_while_statement, STATE 925), (sym_try_statement, STATE 925),
    (sym_with_statement, STATE 925), (sym_function_definition, STATE 925),
    (sym_global_statement, STATE 11814), (sym_nonlocal_statement, STATE 11814),
    (sym_exec_statement, STATE 11814), (sym_type_alias_statement, STATE 11814),
    (sym_parameterized_alias_statement, STATE 11814), (sym_class_definition, STATE 925),
    (sym_trait_definition, STATE 925), (sym_decorated_definition, STATE 925),
    (sym_decorator, STATE 3670), (sym_block, STATE 5746), (sym_pattern, STATE 8086),
    (sym_tuple_pattern, STATE 8101), (sym_list_pattern, STATE 8101),
    (sym_list_splat_pattern, STATE 6819), (sym_as_pattern, STATE 7969),
    (sym_expression, STATE 9883), (sym_primary_expression, STATE 7326),
    (sym_comptime_expression, STATE 7017), (sym_transfer_expression, STATE 7017),
    (sym_not_operator, STATE 7969), (sym_boolean_operator, STATE 7969),
    (sym_binary_operator, STATE 7017), (sym_unary_operator, STATE 7017),
    (sym_comparison_operator, STATE 7969), (sym_lambda, STATE 7969),
    (sym_assignment, STATE 12425), (sym_augmented_assignment, STATE 12425),
    (sym_pattern_list, STATE 8578), (sym_yield, STATE 12425), (sym_attribute, STATE 6836),
    (sym_subscript, STATE 6838), (sym_call, STATE 6845), (sym_mlir_type, STATE 7017),
    (sym_list, STATE 7017), (sym_set, STATE 7017), (sym_tuple, STATE 7017),
    (sym_dictionary, STATE 7017), (sym_struct_literal, STATE 7017),
    (sym_list_comprehension, STATE 7017), (sym_dictionary_comprehension, STATE 7017),
    (sym_set_comprehension, STATE 7017), (sym_generator_expression, STATE 7017),
    (sym_parenthesized_expression, STATE 7017), (sym_conditional_expression, STATE 7969),
    (sym_concatenated_string, STATE 7017), (sym_string, STATE 6751), (sym_await, STATE 7017),
    (aux_sym_module_repeat1, STATE 925), (aux_sym_decorated_definition_repeat1, STATE 3670),
    (sym_identifier, ACTIONS 9), (anon_sym_import, ACTIONS 11), (anon_sym_from, ACTIONS 13),
    (anon_sym_LPAREN, ACTIONS 15), (anon_sym_STAR, ACTIONS 17), (anon_sym_print, ACTIONS 19),
    (anon_sym_comptime, ACTIONS 99), (anon_sym_assert, ACTIONS 23),
    (anon_sym___comptime_assert, ACTIONS 25), (anon_sym_return, ACTIONS 27),
    (anon_sym_del, ACTIONS 29), (anon_sym_raise, ACTIONS 31), (anon_sym_pass, ACTIONS 33),
    (anon_sym_break, ACTIONS 35), (anon_sym_continue, ACTIONS 37),
    (anon_sym___extension, ACTIONS 101), (anon_sym___mlir_region, ACTIONS 103),
    (anon_sym_if, ACTIONS 105), (anon_sym_match, ACTIONS 107), (anon_sym_async, ACTIONS 109),
    (anon_sym_for, ACTIONS 111), (anon_sym_while, ACTIONS 113), (anon_sym_try, ACTIONS 115),
    (anon_sym_with, ACTIONS 117), (anon_sym_def, ACTIONS 119), (anon_sym_fn, ACTIONS 119),
    (anon_sym_LBRACK, ACTIONS 59), (anon_sym_LBRACE, ACTIONS 61), (anon_sym_global, ACTIONS 63),
    (anon_sym_nonlocal, ACTIONS 65), (anon_sym_exec, ACTIONS 67), (anon_sym_type, ACTIONS 69),
    (anon_sym_class, ACTIONS 121), (anon_sym_struct, ACTIONS 121), (anon_sym_mut, ACTIONS 73),
    (anon_sym_out, ACTIONS 73), (anon_sym_trait, ACTIONS 123), (anon_sym_AT, ACTIONS 77),
    (anon_sym_DASH, ACTIONS 79), (anon_sym_PLUS, ACTIONS 79), (anon_sym_ref, ACTIONS 81),
    (anon_sym_var, ACTIONS 81), (anon_sym_not, ACTIONS 83), (anon_sym_TILDE, ACTIONS 79),
    (anon_sym_lambda, ACTIONS 85), (anon_sym_yield, ACTIONS 87), (sym_ellipsis, ACTIONS 89),
    (anon_sym___mlir_type, ACTIONS 91), (sym_integer, ACTIONS 93), (sym_float, ACTIONS 89),
    (anon_sym_await, ACTIONS 95), (sym_true, ACTIONS 93), (sym_false, ACTIONS 93),
    (sym_none, ACTIONS 93), (sym_comment, ACTIONS 3), (sym_line_continuation, ACTIONS 3),
    (sym__dedent, ACTIONS 129), (sym_string_start, ACTIONS 97)]"

definition parse_table_311 :: "(nat \<times> nat) list" where "parse_table_311 = [
    (sym__statement, STATE 925), (sym__simple_statements, STATE 925),
    (sym_import_statement, STATE 11814), (sym_future_import_statement, STATE 11814),
    (sym_import_from_statement, STATE 11814), (sym_print_statement, STATE 11814),
    (sym_assert_statement, STATE 11814), (sym_comptime_assert_statement, STATE 11814),
    (sym_expression_statement, STATE 11814), (sym_tuple_expression, STATE 12425),
    (sym_named_expression, STATE 7969), (sym__named_expression_lhs, STATE 12752),
    (sym_return_statement, STATE 11814), (sym_delete_statement, STATE 11814),
    (sym_raise_statement, STATE 11814), (sym_pass_statement, STATE 11814),
    (sym_break_statement, STATE 11814), (sym_continue_statement, STATE 11814),
    (sym_extension_definition, STATE 925), (sym_mlir_region, STATE 925),
    (sym_comptime_statement, STATE 925), (sym_if_statement, STATE 925),
    (sym_match_statement, STATE 925), (sym_for_statement, STATE 925),
    (sym_while_statement, STATE 925), (sym_try_statement, STATE 925),
    (sym_with_statement, STATE 925), (sym_function_definition, STATE 925),
    (sym_global_statement, STATE 11814), (sym_nonlocal_statement, STATE 11814),
    (sym_exec_statement, STATE 11814), (sym_type_alias_statement, STATE 11814),
    (sym_parameterized_alias_statement, STATE 11814), (sym_class_definition, STATE 925),
    (sym_trait_definition, STATE 925), (sym_decorated_definition, STATE 925),
    (sym_decorator, STATE 3670), (sym_block, STATE 5777), (sym_pattern, STATE 8086),
    (sym_tuple_pattern, STATE 8101), (sym_list_pattern, STATE 8101),
    (sym_list_splat_pattern, STATE 6819), (sym_as_pattern, STATE 7969),
    (sym_expression, STATE 9883), (sym_primary_expression, STATE 7326),
    (sym_comptime_expression, STATE 7017), (sym_transfer_expression, STATE 7017),
    (sym_not_operator, STATE 7969), (sym_boolean_operator, STATE 7969),
    (sym_binary_operator, STATE 7017), (sym_unary_operator, STATE 7017),
    (sym_comparison_operator, STATE 7969), (sym_lambda, STATE 7969),
    (sym_assignment, STATE 12425), (sym_augmented_assignment, STATE 12425),
    (sym_pattern_list, STATE 8578), (sym_yield, STATE 12425), (sym_attribute, STATE 6836),
    (sym_subscript, STATE 6838), (sym_call, STATE 6845), (sym_mlir_type, STATE 7017),
    (sym_list, STATE 7017), (sym_set, STATE 7017), (sym_tuple, STATE 7017),
    (sym_dictionary, STATE 7017), (sym_struct_literal, STATE 7017),
    (sym_list_comprehension, STATE 7017), (sym_dictionary_comprehension, STATE 7017),
    (sym_set_comprehension, STATE 7017), (sym_generator_expression, STATE 7017),
    (sym_parenthesized_expression, STATE 7017), (sym_conditional_expression, STATE 7969),
    (sym_concatenated_string, STATE 7017), (sym_string, STATE 6751), (sym_await, STATE 7017),
    (aux_sym_module_repeat1, STATE 925), (aux_sym_decorated_definition_repeat1, STATE 3670),
    (sym_identifier, ACTIONS 9), (anon_sym_import, ACTIONS 11), (anon_sym_from, ACTIONS 13),
    (anon_sym_LPAREN, ACTIONS 15), (anon_sym_STAR, ACTIONS 17), (anon_sym_print, ACTIONS 19),
    (anon_sym_comptime, ACTIONS 99), (anon_sym_assert, ACTIONS 23),
    (anon_sym___comptime_assert, ACTIONS 25), (anon_sym_return, ACTIONS 27),
    (anon_sym_del, ACTIONS 29), (anon_sym_raise, ACTIONS 31), (anon_sym_pass, ACTIONS 33),
    (anon_sym_break, ACTIONS 35), (anon_sym_continue, ACTIONS 37),
    (anon_sym___extension, ACTIONS 101), (anon_sym___mlir_region, ACTIONS 103),
    (anon_sym_if, ACTIONS 105), (anon_sym_match, ACTIONS 107), (anon_sym_async, ACTIONS 109),
    (anon_sym_for, ACTIONS 111), (anon_sym_while, ACTIONS 113), (anon_sym_try, ACTIONS 115),
    (anon_sym_with, ACTIONS 117), (anon_sym_def, ACTIONS 119), (anon_sym_fn, ACTIONS 119),
    (anon_sym_LBRACK, ACTIONS 59), (anon_sym_LBRACE, ACTIONS 61), (anon_sym_global, ACTIONS 63),
    (anon_sym_nonlocal, ACTIONS 65), (anon_sym_exec, ACTIONS 67), (anon_sym_type, ACTIONS 69),
    (anon_sym_class, ACTIONS 121), (anon_sym_struct, ACTIONS 121), (anon_sym_mut, ACTIONS 73),
    (anon_sym_out, ACTIONS 73), (anon_sym_trait, ACTIONS 123), (anon_sym_AT, ACTIONS 77),
    (anon_sym_DASH, ACTIONS 79), (anon_sym_PLUS, ACTIONS 79), (anon_sym_ref, ACTIONS 81),
    (anon_sym_var, ACTIONS 81), (anon_sym_not, ACTIONS 83), (anon_sym_TILDE, ACTIONS 79),
    (anon_sym_lambda, ACTIONS 85), (anon_sym_yield, ACTIONS 87), (sym_ellipsis, ACTIONS 89),
    (anon_sym___mlir_type, ACTIONS 91), (sym_integer, ACTIONS 93), (sym_float, ACTIONS 89),
    (anon_sym_await, ACTIONS 95), (sym_true, ACTIONS 93), (sym_false, ACTIONS 93),
    (sym_none, ACTIONS 93), (sym_comment, ACTIONS 3), (sym_line_continuation, ACTIONS 3),
    (sym__dedent, ACTIONS 129), (sym_string_start, ACTIONS 97)]"

definition parse_table_312 :: "(nat \<times> nat) list" where "parse_table_312 = [
    (sym__statement, STATE 925), (sym__simple_statements, STATE 925),
    (sym_import_statement, STATE 11814), (sym_future_import_statement, STATE 11814),
    (sym_import_from_statement, STATE 11814), (sym_print_statement, STATE 11814),
    (sym_assert_statement, STATE 11814), (sym_comptime_assert_statement, STATE 11814),
    (sym_expression_statement, STATE 11814), (sym_tuple_expression, STATE 12425),
    (sym_named_expression, STATE 7969), (sym__named_expression_lhs, STATE 12752),
    (sym_return_statement, STATE 11814), (sym_delete_statement, STATE 11814),
    (sym_raise_statement, STATE 11814), (sym_pass_statement, STATE 11814),
    (sym_break_statement, STATE 11814), (sym_continue_statement, STATE 11814),
    (sym_extension_definition, STATE 925), (sym_mlir_region, STATE 925),
    (sym_comptime_statement, STATE 925), (sym_if_statement, STATE 925),
    (sym_match_statement, STATE 925), (sym_for_statement, STATE 925),
    (sym_while_statement, STATE 925), (sym_try_statement, STATE 925),
    (sym_with_statement, STATE 925), (sym_function_definition, STATE 925),
    (sym_global_statement, STATE 11814), (sym_nonlocal_statement, STATE 11814),
    (sym_exec_statement, STATE 11814), (sym_type_alias_statement, STATE 11814),
    (sym_parameterized_alias_statement, STATE 11814), (sym_class_definition, STATE 925),
    (sym_trait_definition, STATE 925), (sym_decorated_definition, STATE 925),
    (sym_decorator, STATE 3670), (sym_block, STATE 5801), (sym_pattern, STATE 8086),
    (sym_tuple_pattern, STATE 8101), (sym_list_pattern, STATE 8101),
    (sym_list_splat_pattern, STATE 6819), (sym_as_pattern, STATE 7969),
    (sym_expression, STATE 9883), (sym_primary_expression, STATE 7326),
    (sym_comptime_expression, STATE 7017), (sym_transfer_expression, STATE 7017),
    (sym_not_operator, STATE 7969), (sym_boolean_operator, STATE 7969),
    (sym_binary_operator, STATE 7017), (sym_unary_operator, STATE 7017),
    (sym_comparison_operator, STATE 7969), (sym_lambda, STATE 7969),
    (sym_assignment, STATE 12425), (sym_augmented_assignment, STATE 12425),
    (sym_pattern_list, STATE 8578), (sym_yield, STATE 12425), (sym_attribute, STATE 6836),
    (sym_subscript, STATE 6838), (sym_call, STATE 6845), (sym_mlir_type, STATE 7017),
    (sym_list, STATE 7017), (sym_set, STATE 7017), (sym_tuple, STATE 7017),
    (sym_dictionary, STATE 7017), (sym_struct_literal, STATE 7017),
    (sym_list_comprehension, STATE 7017), (sym_dictionary_comprehension, STATE 7017),
    (sym_set_comprehension, STATE 7017), (sym_generator_expression, STATE 7017),
    (sym_parenthesized_expression, STATE 7017), (sym_conditional_expression, STATE 7969),
    (sym_concatenated_string, STATE 7017), (sym_string, STATE 6751), (sym_await, STATE 7017),
    (aux_sym_module_repeat1, STATE 925), (aux_sym_decorated_definition_repeat1, STATE 3670),
    (sym_identifier, ACTIONS 9), (anon_sym_import, ACTIONS 11), (anon_sym_from, ACTIONS 13),
    (anon_sym_LPAREN, ACTIONS 15), (anon_sym_STAR, ACTIONS 17), (anon_sym_print, ACTIONS 19),
    (anon_sym_comptime, ACTIONS 99), (anon_sym_assert, ACTIONS 23),
    (anon_sym___comptime_assert, ACTIONS 25), (anon_sym_return, ACTIONS 27),
    (anon_sym_del, ACTIONS 29), (anon_sym_raise, ACTIONS 31), (anon_sym_pass, ACTIONS 33),
    (anon_sym_break, ACTIONS 35), (anon_sym_continue, ACTIONS 37),
    (anon_sym___extension, ACTIONS 101), (anon_sym___mlir_region, ACTIONS 103),
    (anon_sym_if, ACTIONS 105), (anon_sym_match, ACTIONS 107), (anon_sym_async, ACTIONS 109),
    (anon_sym_for, ACTIONS 111), (anon_sym_while, ACTIONS 113), (anon_sym_try, ACTIONS 115),
    (anon_sym_with, ACTIONS 117), (anon_sym_def, ACTIONS 119), (anon_sym_fn, ACTIONS 119),
    (anon_sym_LBRACK, ACTIONS 59), (anon_sym_LBRACE, ACTIONS 61), (anon_sym_global, ACTIONS 63),
    (anon_sym_nonlocal, ACTIONS 65), (anon_sym_exec, ACTIONS 67), (anon_sym_type, ACTIONS 69),
    (anon_sym_class, ACTIONS 121), (anon_sym_struct, ACTIONS 121), (anon_sym_mut, ACTIONS 73),
    (anon_sym_out, ACTIONS 73), (anon_sym_trait, ACTIONS 123), (anon_sym_AT, ACTIONS 77),
    (anon_sym_DASH, ACTIONS 79), (anon_sym_PLUS, ACTIONS 79), (anon_sym_ref, ACTIONS 81),
    (anon_sym_var, ACTIONS 81), (anon_sym_not, ACTIONS 83), (anon_sym_TILDE, ACTIONS 79),
    (anon_sym_lambda, ACTIONS 85), (anon_sym_yield, ACTIONS 87), (sym_ellipsis, ACTIONS 89),
    (anon_sym___mlir_type, ACTIONS 91), (sym_integer, ACTIONS 93), (sym_float, ACTIONS 89),
    (anon_sym_await, ACTIONS 95), (sym_true, ACTIONS 93), (sym_false, ACTIONS 93),
    (sym_none, ACTIONS 93), (sym_comment, ACTIONS 3), (sym_line_continuation, ACTIONS 3),
    (sym__dedent, ACTIONS 129), (sym_string_start, ACTIONS 97)]"

definition parse_table_313 :: "(nat \<times> nat) list" where "parse_table_313 = [
    (sym__statement, STATE 925), (sym__simple_statements, STATE 925),
    (sym_import_statement, STATE 11814), (sym_future_import_statement, STATE 11814),
    (sym_import_from_statement, STATE 11814), (sym_print_statement, STATE 11814),
    (sym_assert_statement, STATE 11814), (sym_comptime_assert_statement, STATE 11814),
    (sym_expression_statement, STATE 11814), (sym_tuple_expression, STATE 12425),
    (sym_named_expression, STATE 7969), (sym__named_expression_lhs, STATE 12752),
    (sym_return_statement, STATE 11814), (sym_delete_statement, STATE 11814),
    (sym_raise_statement, STATE 11814), (sym_pass_statement, STATE 11814),
    (sym_break_statement, STATE 11814), (sym_continue_statement, STATE 11814),
    (sym_extension_definition, STATE 925), (sym_mlir_region, STATE 925),
    (sym_comptime_statement, STATE 925), (sym_if_statement, STATE 925),
    (sym_match_statement, STATE 925), (sym_for_statement, STATE 925),
    (sym_while_statement, STATE 925), (sym_try_statement, STATE 925),
    (sym_with_statement, STATE 925), (sym_function_definition, STATE 925),
    (sym_global_statement, STATE 11814), (sym_nonlocal_statement, STATE 11814),
    (sym_exec_statement, STATE 11814), (sym_type_alias_statement, STATE 11814),
    (sym_parameterized_alias_statement, STATE 11814), (sym_class_definition, STATE 925),
    (sym_trait_definition, STATE 925), (sym_decorated_definition, STATE 925),
    (sym_decorator, STATE 3670), (sym_block, STATE 5802), (sym_pattern, STATE 8086),
    (sym_tuple_pattern, STATE 8101), (sym_list_pattern, STATE 8101),
    (sym_list_splat_pattern, STATE 6819), (sym_as_pattern, STATE 7969),
    (sym_expression, STATE 9883), (sym_primary_expression, STATE 7326),
    (sym_comptime_expression, STATE 7017), (sym_transfer_expression, STATE 7017),
    (sym_not_operator, STATE 7969), (sym_boolean_operator, STATE 7969),
    (sym_binary_operator, STATE 7017), (sym_unary_operator, STATE 7017),
    (sym_comparison_operator, STATE 7969), (sym_lambda, STATE 7969),
    (sym_assignment, STATE 12425), (sym_augmented_assignment, STATE 12425),
    (sym_pattern_list, STATE 8578), (sym_yield, STATE 12425), (sym_attribute, STATE 6836),
    (sym_subscript, STATE 6838), (sym_call, STATE 6845), (sym_mlir_type, STATE 7017),
    (sym_list, STATE 7017), (sym_set, STATE 7017), (sym_tuple, STATE 7017),
    (sym_dictionary, STATE 7017), (sym_struct_literal, STATE 7017),
    (sym_list_comprehension, STATE 7017), (sym_dictionary_comprehension, STATE 7017),
    (sym_set_comprehension, STATE 7017), (sym_generator_expression, STATE 7017),
    (sym_parenthesized_expression, STATE 7017), (sym_conditional_expression, STATE 7969),
    (sym_concatenated_string, STATE 7017), (sym_string, STATE 6751), (sym_await, STATE 7017),
    (aux_sym_module_repeat1, STATE 925), (aux_sym_decorated_definition_repeat1, STATE 3670),
    (sym_identifier, ACTIONS 9), (anon_sym_import, ACTIONS 11), (anon_sym_from, ACTIONS 13),
    (anon_sym_LPAREN, ACTIONS 15), (anon_sym_STAR, ACTIONS 17), (anon_sym_print, ACTIONS 19),
    (anon_sym_comptime, ACTIONS 99), (anon_sym_assert, ACTIONS 23),
    (anon_sym___comptime_assert, ACTIONS 25), (anon_sym_return, ACTIONS 27),
    (anon_sym_del, ACTIONS 29), (anon_sym_raise, ACTIONS 31), (anon_sym_pass, ACTIONS 33),
    (anon_sym_break, ACTIONS 35), (anon_sym_continue, ACTIONS 37),
    (anon_sym___extension, ACTIONS 101), (anon_sym___mlir_region, ACTIONS 103),
    (anon_sym_if, ACTIONS 105), (anon_sym_match, ACTIONS 107), (anon_sym_async, ACTIONS 109),
    (anon_sym_for, ACTIONS 111), (anon_sym_while, ACTIONS 113), (anon_sym_try, ACTIONS 115),
    (anon_sym_with, ACTIONS 117), (anon_sym_def, ACTIONS 119), (anon_sym_fn, ACTIONS 119),
    (anon_sym_LBRACK, ACTIONS 59), (anon_sym_LBRACE, ACTIONS 61), (anon_sym_global, ACTIONS 63),
    (anon_sym_nonlocal, ACTIONS 65), (anon_sym_exec, ACTIONS 67), (anon_sym_type, ACTIONS 69),
    (anon_sym_class, ACTIONS 121), (anon_sym_struct, ACTIONS 121), (anon_sym_mut, ACTIONS 73),
    (anon_sym_out, ACTIONS 73), (anon_sym_trait, ACTIONS 123), (anon_sym_AT, ACTIONS 77),
    (anon_sym_DASH, ACTIONS 79), (anon_sym_PLUS, ACTIONS 79), (anon_sym_ref, ACTIONS 81),
    (anon_sym_var, ACTIONS 81), (anon_sym_not, ACTIONS 83), (anon_sym_TILDE, ACTIONS 79),
    (anon_sym_lambda, ACTIONS 85), (anon_sym_yield, ACTIONS 87), (sym_ellipsis, ACTIONS 89),
    (anon_sym___mlir_type, ACTIONS 91), (sym_integer, ACTIONS 93), (sym_float, ACTIONS 89),
    (anon_sym_await, ACTIONS 95), (sym_true, ACTIONS 93), (sym_false, ACTIONS 93),
    (sym_none, ACTIONS 93), (sym_comment, ACTIONS 3), (sym_line_continuation, ACTIONS 3),
    (sym__dedent, ACTIONS 129), (sym_string_start, ACTIONS 97)]"

definition parse_table_314 :: "(nat \<times> nat) list" where "parse_table_314 = [
    (sym__statement, STATE 925), (sym__simple_statements, STATE 925),
    (sym_import_statement, STATE 11814), (sym_future_import_statement, STATE 11814),
    (sym_import_from_statement, STATE 11814), (sym_print_statement, STATE 11814),
    (sym_assert_statement, STATE 11814), (sym_comptime_assert_statement, STATE 11814),
    (sym_expression_statement, STATE 11814), (sym_tuple_expression, STATE 12425),
    (sym_named_expression, STATE 7969), (sym__named_expression_lhs, STATE 12752),
    (sym_return_statement, STATE 11814), (sym_delete_statement, STATE 11814),
    (sym_raise_statement, STATE 11814), (sym_pass_statement, STATE 11814),
    (sym_break_statement, STATE 11814), (sym_continue_statement, STATE 11814),
    (sym_extension_definition, STATE 925), (sym_mlir_region, STATE 925),
    (sym_comptime_statement, STATE 925), (sym_if_statement, STATE 925),
    (sym_match_statement, STATE 925), (sym_for_statement, STATE 925),
    (sym_while_statement, STATE 925), (sym_try_statement, STATE 925),
    (sym_with_statement, STATE 925), (sym_function_definition, STATE 925),
    (sym_global_statement, STATE 11814), (sym_nonlocal_statement, STATE 11814),
    (sym_exec_statement, STATE 11814), (sym_type_alias_statement, STATE 11814),
    (sym_parameterized_alias_statement, STATE 11814), (sym_class_definition, STATE 925),
    (sym_trait_definition, STATE 925), (sym_decorated_definition, STATE 925),
    (sym_decorator, STATE 3670), (sym_block, STATE 5803), (sym_pattern, STATE 8086),
    (sym_tuple_pattern, STATE 8101), (sym_list_pattern, STATE 8101),
    (sym_list_splat_pattern, STATE 6819), (sym_as_pattern, STATE 7969),
    (sym_expression, STATE 9883), (sym_primary_expression, STATE 7326),
    (sym_comptime_expression, STATE 7017), (sym_transfer_expression, STATE 7017),
    (sym_not_operator, STATE 7969), (sym_boolean_operator, STATE 7969),
    (sym_binary_operator, STATE 7017), (sym_unary_operator, STATE 7017),
    (sym_comparison_operator, STATE 7969), (sym_lambda, STATE 7969),
    (sym_assignment, STATE 12425), (sym_augmented_assignment, STATE 12425),
    (sym_pattern_list, STATE 8578), (sym_yield, STATE 12425), (sym_attribute, STATE 6836),
    (sym_subscript, STATE 6838), (sym_call, STATE 6845), (sym_mlir_type, STATE 7017),
    (sym_list, STATE 7017), (sym_set, STATE 7017), (sym_tuple, STATE 7017),
    (sym_dictionary, STATE 7017), (sym_struct_literal, STATE 7017),
    (sym_list_comprehension, STATE 7017), (sym_dictionary_comprehension, STATE 7017),
    (sym_set_comprehension, STATE 7017), (sym_generator_expression, STATE 7017),
    (sym_parenthesized_expression, STATE 7017), (sym_conditional_expression, STATE 7969),
    (sym_concatenated_string, STATE 7017), (sym_string, STATE 6751), (sym_await, STATE 7017),
    (aux_sym_module_repeat1, STATE 925), (aux_sym_decorated_definition_repeat1, STATE 3670),
    (sym_identifier, ACTIONS 9), (anon_sym_import, ACTIONS 11), (anon_sym_from, ACTIONS 13),
    (anon_sym_LPAREN, ACTIONS 15), (anon_sym_STAR, ACTIONS 17), (anon_sym_print, ACTIONS 19),
    (anon_sym_comptime, ACTIONS 99), (anon_sym_assert, ACTIONS 23),
    (anon_sym___comptime_assert, ACTIONS 25), (anon_sym_return, ACTIONS 27),
    (anon_sym_del, ACTIONS 29), (anon_sym_raise, ACTIONS 31), (anon_sym_pass, ACTIONS 33),
    (anon_sym_break, ACTIONS 35), (anon_sym_continue, ACTIONS 37),
    (anon_sym___extension, ACTIONS 101), (anon_sym___mlir_region, ACTIONS 103),
    (anon_sym_if, ACTIONS 105), (anon_sym_match, ACTIONS 107), (anon_sym_async, ACTIONS 109),
    (anon_sym_for, ACTIONS 111), (anon_sym_while, ACTIONS 113), (anon_sym_try, ACTIONS 115),
    (anon_sym_with, ACTIONS 117), (anon_sym_def, ACTIONS 119), (anon_sym_fn, ACTIONS 119),
    (anon_sym_LBRACK, ACTIONS 59), (anon_sym_LBRACE, ACTIONS 61), (anon_sym_global, ACTIONS 63),
    (anon_sym_nonlocal, ACTIONS 65), (anon_sym_exec, ACTIONS 67), (anon_sym_type, ACTIONS 69),
    (anon_sym_class, ACTIONS 121), (anon_sym_struct, ACTIONS 121), (anon_sym_mut, ACTIONS 73),
    (anon_sym_out, ACTIONS 73), (anon_sym_trait, ACTIONS 123), (anon_sym_AT, ACTIONS 77),
    (anon_sym_DASH, ACTIONS 79), (anon_sym_PLUS, ACTIONS 79), (anon_sym_ref, ACTIONS 81),
    (anon_sym_var, ACTIONS 81), (anon_sym_not, ACTIONS 83), (anon_sym_TILDE, ACTIONS 79),
    (anon_sym_lambda, ACTIONS 85), (anon_sym_yield, ACTIONS 87), (sym_ellipsis, ACTIONS 89),
    (anon_sym___mlir_type, ACTIONS 91), (sym_integer, ACTIONS 93), (sym_float, ACTIONS 89),
    (anon_sym_await, ACTIONS 95), (sym_true, ACTIONS 93), (sym_false, ACTIONS 93),
    (sym_none, ACTIONS 93), (sym_comment, ACTIONS 3), (sym_line_continuation, ACTIONS 3),
    (sym__dedent, ACTIONS 129), (sym_string_start, ACTIONS 97)]"

definition parse_table_315 :: "(nat \<times> nat) list" where "parse_table_315 = [
    (sym__statement, STATE 925), (sym__simple_statements, STATE 925),
    (sym_import_statement, STATE 11814), (sym_future_import_statement, STATE 11814),
    (sym_import_from_statement, STATE 11814), (sym_print_statement, STATE 11814),
    (sym_assert_statement, STATE 11814), (sym_comptime_assert_statement, STATE 11814),
    (sym_expression_statement, STATE 11814), (sym_tuple_expression, STATE 12425),
    (sym_named_expression, STATE 7969), (sym__named_expression_lhs, STATE 12752),
    (sym_return_statement, STATE 11814), (sym_delete_statement, STATE 11814),
    (sym_raise_statement, STATE 11814), (sym_pass_statement, STATE 11814),
    (sym_break_statement, STATE 11814), (sym_continue_statement, STATE 11814),
    (sym_extension_definition, STATE 925), (sym_mlir_region, STATE 925),
    (sym_comptime_statement, STATE 925), (sym_if_statement, STATE 925),
    (sym_match_statement, STATE 925), (sym_for_statement, STATE 925),
    (sym_while_statement, STATE 925), (sym_try_statement, STATE 925),
    (sym_with_statement, STATE 925), (sym_function_definition, STATE 925),
    (sym_global_statement, STATE 11814), (sym_nonlocal_statement, STATE 11814),
    (sym_exec_statement, STATE 11814), (sym_type_alias_statement, STATE 11814),
    (sym_parameterized_alias_statement, STATE 11814), (sym_class_definition, STATE 925),
    (sym_trait_definition, STATE 925), (sym_decorated_definition, STATE 925),
    (sym_decorator, STATE 3670), (sym_block, STATE 5840), (sym_pattern, STATE 8086),
    (sym_tuple_pattern, STATE 8101), (sym_list_pattern, STATE 8101),
    (sym_list_splat_pattern, STATE 6819), (sym_as_pattern, STATE 7969),
    (sym_expression, STATE 9883), (sym_primary_expression, STATE 7326),
    (sym_comptime_expression, STATE 7017), (sym_transfer_expression, STATE 7017),
    (sym_not_operator, STATE 7969), (sym_boolean_operator, STATE 7969),
    (sym_binary_operator, STATE 7017), (sym_unary_operator, STATE 7017),
    (sym_comparison_operator, STATE 7969), (sym_lambda, STATE 7969),
    (sym_assignment, STATE 12425), (sym_augmented_assignment, STATE 12425),
    (sym_pattern_list, STATE 8578), (sym_yield, STATE 12425), (sym_attribute, STATE 6836),
    (sym_subscript, STATE 6838), (sym_call, STATE 6845), (sym_mlir_type, STATE 7017),
    (sym_list, STATE 7017), (sym_set, STATE 7017), (sym_tuple, STATE 7017),
    (sym_dictionary, STATE 7017), (sym_struct_literal, STATE 7017),
    (sym_list_comprehension, STATE 7017), (sym_dictionary_comprehension, STATE 7017),
    (sym_set_comprehension, STATE 7017), (sym_generator_expression, STATE 7017),
    (sym_parenthesized_expression, STATE 7017), (sym_conditional_expression, STATE 7969),
    (sym_concatenated_string, STATE 7017), (sym_string, STATE 6751), (sym_await, STATE 7017),
    (aux_sym_module_repeat1, STATE 925), (aux_sym_decorated_definition_repeat1, STATE 3670),
    (sym_identifier, ACTIONS 9), (anon_sym_import, ACTIONS 11), (anon_sym_from, ACTIONS 13),
    (anon_sym_LPAREN, ACTIONS 15), (anon_sym_STAR, ACTIONS 17), (anon_sym_print, ACTIONS 19),
    (anon_sym_comptime, ACTIONS 99), (anon_sym_assert, ACTIONS 23),
    (anon_sym___comptime_assert, ACTIONS 25), (anon_sym_return, ACTIONS 27),
    (anon_sym_del, ACTIONS 29), (anon_sym_raise, ACTIONS 31), (anon_sym_pass, ACTIONS 33),
    (anon_sym_break, ACTIONS 35), (anon_sym_continue, ACTIONS 37),
    (anon_sym___extension, ACTIONS 101), (anon_sym___mlir_region, ACTIONS 103),
    (anon_sym_if, ACTIONS 105), (anon_sym_match, ACTIONS 107), (anon_sym_async, ACTIONS 109),
    (anon_sym_for, ACTIONS 111), (anon_sym_while, ACTIONS 113), (anon_sym_try, ACTIONS 115),
    (anon_sym_with, ACTIONS 117), (anon_sym_def, ACTIONS 119), (anon_sym_fn, ACTIONS 119),
    (anon_sym_LBRACK, ACTIONS 59), (anon_sym_LBRACE, ACTIONS 61), (anon_sym_global, ACTIONS 63),
    (anon_sym_nonlocal, ACTIONS 65), (anon_sym_exec, ACTIONS 67), (anon_sym_type, ACTIONS 69),
    (anon_sym_class, ACTIONS 121), (anon_sym_struct, ACTIONS 121), (anon_sym_mut, ACTIONS 73),
    (anon_sym_out, ACTIONS 73), (anon_sym_trait, ACTIONS 123), (anon_sym_AT, ACTIONS 77),
    (anon_sym_DASH, ACTIONS 79), (anon_sym_PLUS, ACTIONS 79), (anon_sym_ref, ACTIONS 81),
    (anon_sym_var, ACTIONS 81), (anon_sym_not, ACTIONS 83), (anon_sym_TILDE, ACTIONS 79),
    (anon_sym_lambda, ACTIONS 85), (anon_sym_yield, ACTIONS 87), (sym_ellipsis, ACTIONS 89),
    (anon_sym___mlir_type, ACTIONS 91), (sym_integer, ACTIONS 93), (sym_float, ACTIONS 89),
    (anon_sym_await, ACTIONS 95), (sym_true, ACTIONS 93), (sym_false, ACTIONS 93),
    (sym_none, ACTIONS 93), (sym_comment, ACTIONS 3), (sym_line_continuation, ACTIONS 3),
    (sym__dedent, ACTIONS 129), (sym_string_start, ACTIONS 97)]"

definition parse_table_316 :: "(nat \<times> nat) list" where "parse_table_316 = [
    (sym__statement, STATE 925), (sym__simple_statements, STATE 925),
    (sym_import_statement, STATE 11814), (sym_future_import_statement, STATE 11814),
    (sym_import_from_statement, STATE 11814), (sym_print_statement, STATE 11814),
    (sym_assert_statement, STATE 11814), (sym_comptime_assert_statement, STATE 11814),
    (sym_expression_statement, STATE 11814), (sym_tuple_expression, STATE 12425),
    (sym_named_expression, STATE 7969), (sym__named_expression_lhs, STATE 12752),
    (sym_return_statement, STATE 11814), (sym_delete_statement, STATE 11814),
    (sym_raise_statement, STATE 11814), (sym_pass_statement, STATE 11814),
    (sym_break_statement, STATE 11814), (sym_continue_statement, STATE 11814),
    (sym_extension_definition, STATE 925), (sym_mlir_region, STATE 925),
    (sym_comptime_statement, STATE 925), (sym_if_statement, STATE 925),
    (sym_match_statement, STATE 925), (sym_for_statement, STATE 925),
    (sym_while_statement, STATE 925), (sym_try_statement, STATE 925),
    (sym_with_statement, STATE 925), (sym_function_definition, STATE 925),
    (sym_global_statement, STATE 11814), (sym_nonlocal_statement, STATE 11814),
    (sym_exec_statement, STATE 11814), (sym_type_alias_statement, STATE 11814),
    (sym_parameterized_alias_statement, STATE 11814), (sym_class_definition, STATE 925),
    (sym_trait_definition, STATE 925), (sym_decorated_definition, STATE 925),
    (sym_decorator, STATE 3670), (sym_block, STATE 5892), (sym_pattern, STATE 8086),
    (sym_tuple_pattern, STATE 8101), (sym_list_pattern, STATE 8101),
    (sym_list_splat_pattern, STATE 6819), (sym_as_pattern, STATE 7969),
    (sym_expression, STATE 9883), (sym_primary_expression, STATE 7326),
    (sym_comptime_expression, STATE 7017), (sym_transfer_expression, STATE 7017),
    (sym_not_operator, STATE 7969), (sym_boolean_operator, STATE 7969),
    (sym_binary_operator, STATE 7017), (sym_unary_operator, STATE 7017),
    (sym_comparison_operator, STATE 7969), (sym_lambda, STATE 7969),
    (sym_assignment, STATE 12425), (sym_augmented_assignment, STATE 12425),
    (sym_pattern_list, STATE 8578), (sym_yield, STATE 12425), (sym_attribute, STATE 6836),
    (sym_subscript, STATE 6838), (sym_call, STATE 6845), (sym_mlir_type, STATE 7017),
    (sym_list, STATE 7017), (sym_set, STATE 7017), (sym_tuple, STATE 7017),
    (sym_dictionary, STATE 7017), (sym_struct_literal, STATE 7017),
    (sym_list_comprehension, STATE 7017), (sym_dictionary_comprehension, STATE 7017),
    (sym_set_comprehension, STATE 7017), (sym_generator_expression, STATE 7017),
    (sym_parenthesized_expression, STATE 7017), (sym_conditional_expression, STATE 7969),
    (sym_concatenated_string, STATE 7017), (sym_string, STATE 6751), (sym_await, STATE 7017),
    (aux_sym_module_repeat1, STATE 925), (aux_sym_decorated_definition_repeat1, STATE 3670),
    (sym_identifier, ACTIONS 9), (anon_sym_import, ACTIONS 11), (anon_sym_from, ACTIONS 13),
    (anon_sym_LPAREN, ACTIONS 15), (anon_sym_STAR, ACTIONS 17), (anon_sym_print, ACTIONS 19),
    (anon_sym_comptime, ACTIONS 99), (anon_sym_assert, ACTIONS 23),
    (anon_sym___comptime_assert, ACTIONS 25), (anon_sym_return, ACTIONS 27),
    (anon_sym_del, ACTIONS 29), (anon_sym_raise, ACTIONS 31), (anon_sym_pass, ACTIONS 33),
    (anon_sym_break, ACTIONS 35), (anon_sym_continue, ACTIONS 37),
    (anon_sym___extension, ACTIONS 101), (anon_sym___mlir_region, ACTIONS 103),
    (anon_sym_if, ACTIONS 105), (anon_sym_match, ACTIONS 107), (anon_sym_async, ACTIONS 109),
    (anon_sym_for, ACTIONS 111), (anon_sym_while, ACTIONS 113), (anon_sym_try, ACTIONS 115),
    (anon_sym_with, ACTIONS 117), (anon_sym_def, ACTIONS 119), (anon_sym_fn, ACTIONS 119),
    (anon_sym_LBRACK, ACTIONS 59), (anon_sym_LBRACE, ACTIONS 61), (anon_sym_global, ACTIONS 63),
    (anon_sym_nonlocal, ACTIONS 65), (anon_sym_exec, ACTIONS 67), (anon_sym_type, ACTIONS 69),
    (anon_sym_class, ACTIONS 121), (anon_sym_struct, ACTIONS 121), (anon_sym_mut, ACTIONS 73),
    (anon_sym_out, ACTIONS 73), (anon_sym_trait, ACTIONS 123), (anon_sym_AT, ACTIONS 77),
    (anon_sym_DASH, ACTIONS 79), (anon_sym_PLUS, ACTIONS 79), (anon_sym_ref, ACTIONS 81),
    (anon_sym_var, ACTIONS 81), (anon_sym_not, ACTIONS 83), (anon_sym_TILDE, ACTIONS 79),
    (anon_sym_lambda, ACTIONS 85), (anon_sym_yield, ACTIONS 87), (sym_ellipsis, ACTIONS 89),
    (anon_sym___mlir_type, ACTIONS 91), (sym_integer, ACTIONS 93), (sym_float, ACTIONS 89),
    (anon_sym_await, ACTIONS 95), (sym_true, ACTIONS 93), (sym_false, ACTIONS 93),
    (sym_none, ACTIONS 93), (sym_comment, ACTIONS 3), (sym_line_continuation, ACTIONS 3),
    (sym__dedent, ACTIONS 129), (sym_string_start, ACTIONS 97)]"

definition parse_table_317 :: "(nat \<times> nat) list" where "parse_table_317 = [
    (sym__statement, STATE 925), (sym__simple_statements, STATE 925),
    (sym_import_statement, STATE 11814), (sym_future_import_statement, STATE 11814),
    (sym_import_from_statement, STATE 11814), (sym_print_statement, STATE 11814),
    (sym_assert_statement, STATE 11814), (sym_comptime_assert_statement, STATE 11814),
    (sym_expression_statement, STATE 11814), (sym_tuple_expression, STATE 12425),
    (sym_named_expression, STATE 7969), (sym__named_expression_lhs, STATE 12752),
    (sym_return_statement, STATE 11814), (sym_delete_statement, STATE 11814),
    (sym_raise_statement, STATE 11814), (sym_pass_statement, STATE 11814),
    (sym_break_statement, STATE 11814), (sym_continue_statement, STATE 11814),
    (sym_extension_definition, STATE 925), (sym_mlir_region, STATE 925),
    (sym_comptime_statement, STATE 925), (sym_if_statement, STATE 925),
    (sym_match_statement, STATE 925), (sym_for_statement, STATE 925),
    (sym_while_statement, STATE 925), (sym_try_statement, STATE 925),
    (sym_with_statement, STATE 925), (sym_function_definition, STATE 925),
    (sym_global_statement, STATE 11814), (sym_nonlocal_statement, STATE 11814),
    (sym_exec_statement, STATE 11814), (sym_type_alias_statement, STATE 11814),
    (sym_parameterized_alias_statement, STATE 11814), (sym_class_definition, STATE 925),
    (sym_trait_definition, STATE 925), (sym_decorated_definition, STATE 925),
    (sym_decorator, STATE 3670), (sym_block, STATE 5919), (sym_pattern, STATE 8086),
    (sym_tuple_pattern, STATE 8101), (sym_list_pattern, STATE 8101),
    (sym_list_splat_pattern, STATE 6819), (sym_as_pattern, STATE 7969),
    (sym_expression, STATE 9883), (sym_primary_expression, STATE 7326),
    (sym_comptime_expression, STATE 7017), (sym_transfer_expression, STATE 7017),
    (sym_not_operator, STATE 7969), (sym_boolean_operator, STATE 7969),
    (sym_binary_operator, STATE 7017), (sym_unary_operator, STATE 7017),
    (sym_comparison_operator, STATE 7969), (sym_lambda, STATE 7969),
    (sym_assignment, STATE 12425), (sym_augmented_assignment, STATE 12425),
    (sym_pattern_list, STATE 8578), (sym_yield, STATE 12425), (sym_attribute, STATE 6836),
    (sym_subscript, STATE 6838), (sym_call, STATE 6845), (sym_mlir_type, STATE 7017),
    (sym_list, STATE 7017), (sym_set, STATE 7017), (sym_tuple, STATE 7017),
    (sym_dictionary, STATE 7017), (sym_struct_literal, STATE 7017),
    (sym_list_comprehension, STATE 7017), (sym_dictionary_comprehension, STATE 7017),
    (sym_set_comprehension, STATE 7017), (sym_generator_expression, STATE 7017),
    (sym_parenthesized_expression, STATE 7017), (sym_conditional_expression, STATE 7969),
    (sym_concatenated_string, STATE 7017), (sym_string, STATE 6751), (sym_await, STATE 7017),
    (aux_sym_module_repeat1, STATE 925), (aux_sym_decorated_definition_repeat1, STATE 3670),
    (sym_identifier, ACTIONS 9), (anon_sym_import, ACTIONS 11), (anon_sym_from, ACTIONS 13),
    (anon_sym_LPAREN, ACTIONS 15), (anon_sym_STAR, ACTIONS 17), (anon_sym_print, ACTIONS 19),
    (anon_sym_comptime, ACTIONS 99), (anon_sym_assert, ACTIONS 23),
    (anon_sym___comptime_assert, ACTIONS 25), (anon_sym_return, ACTIONS 27),
    (anon_sym_del, ACTIONS 29), (anon_sym_raise, ACTIONS 31), (anon_sym_pass, ACTIONS 33),
    (anon_sym_break, ACTIONS 35), (anon_sym_continue, ACTIONS 37),
    (anon_sym___extension, ACTIONS 101), (anon_sym___mlir_region, ACTIONS 103),
    (anon_sym_if, ACTIONS 105), (anon_sym_match, ACTIONS 107), (anon_sym_async, ACTIONS 109),
    (anon_sym_for, ACTIONS 111), (anon_sym_while, ACTIONS 113), (anon_sym_try, ACTIONS 115),
    (anon_sym_with, ACTIONS 117), (anon_sym_def, ACTIONS 119), (anon_sym_fn, ACTIONS 119),
    (anon_sym_LBRACK, ACTIONS 59), (anon_sym_LBRACE, ACTIONS 61), (anon_sym_global, ACTIONS 63),
    (anon_sym_nonlocal, ACTIONS 65), (anon_sym_exec, ACTIONS 67), (anon_sym_type, ACTIONS 69),
    (anon_sym_class, ACTIONS 121), (anon_sym_struct, ACTIONS 121), (anon_sym_mut, ACTIONS 73),
    (anon_sym_out, ACTIONS 73), (anon_sym_trait, ACTIONS 123), (anon_sym_AT, ACTIONS 77),
    (anon_sym_DASH, ACTIONS 79), (anon_sym_PLUS, ACTIONS 79), (anon_sym_ref, ACTIONS 81),
    (anon_sym_var, ACTIONS 81), (anon_sym_not, ACTIONS 83), (anon_sym_TILDE, ACTIONS 79),
    (anon_sym_lambda, ACTIONS 85), (anon_sym_yield, ACTIONS 87), (sym_ellipsis, ACTIONS 89),
    (anon_sym___mlir_type, ACTIONS 91), (sym_integer, ACTIONS 93), (sym_float, ACTIONS 89),
    (anon_sym_await, ACTIONS 95), (sym_true, ACTIONS 93), (sym_false, ACTIONS 93),
    (sym_none, ACTIONS 93), (sym_comment, ACTIONS 3), (sym_line_continuation, ACTIONS 3),
    (sym__dedent, ACTIONS 129), (sym_string_start, ACTIONS 97)]"

definition parse_table_318 :: "(nat \<times> nat) list" where "parse_table_318 = [
    (sym__statement, STATE 925), (sym__simple_statements, STATE 925),
    (sym_import_statement, STATE 11814), (sym_future_import_statement, STATE 11814),
    (sym_import_from_statement, STATE 11814), (sym_print_statement, STATE 11814),
    (sym_assert_statement, STATE 11814), (sym_comptime_assert_statement, STATE 11814),
    (sym_expression_statement, STATE 11814), (sym_tuple_expression, STATE 12425),
    (sym_named_expression, STATE 7969), (sym__named_expression_lhs, STATE 12752),
    (sym_return_statement, STATE 11814), (sym_delete_statement, STATE 11814),
    (sym_raise_statement, STATE 11814), (sym_pass_statement, STATE 11814),
    (sym_break_statement, STATE 11814), (sym_continue_statement, STATE 11814),
    (sym_extension_definition, STATE 925), (sym_mlir_region, STATE 925),
    (sym_comptime_statement, STATE 925), (sym_if_statement, STATE 925),
    (sym_match_statement, STATE 925), (sym_for_statement, STATE 925),
    (sym_while_statement, STATE 925), (sym_try_statement, STATE 925),
    (sym_with_statement, STATE 925), (sym_function_definition, STATE 925),
    (sym_global_statement, STATE 11814), (sym_nonlocal_statement, STATE 11814),
    (sym_exec_statement, STATE 11814), (sym_type_alias_statement, STATE 11814),
    (sym_parameterized_alias_statement, STATE 11814), (sym_class_definition, STATE 925),
    (sym_trait_definition, STATE 925), (sym_decorated_definition, STATE 925),
    (sym_decorator, STATE 3670), (sym_block, STATE 5936), (sym_pattern, STATE 8086),
    (sym_tuple_pattern, STATE 8101), (sym_list_pattern, STATE 8101),
    (sym_list_splat_pattern, STATE 6819), (sym_as_pattern, STATE 7969),
    (sym_expression, STATE 9883), (sym_primary_expression, STATE 7326),
    (sym_comptime_expression, STATE 7017), (sym_transfer_expression, STATE 7017),
    (sym_not_operator, STATE 7969), (sym_boolean_operator, STATE 7969),
    (sym_binary_operator, STATE 7017), (sym_unary_operator, STATE 7017),
    (sym_comparison_operator, STATE 7969), (sym_lambda, STATE 7969),
    (sym_assignment, STATE 12425), (sym_augmented_assignment, STATE 12425),
    (sym_pattern_list, STATE 8578), (sym_yield, STATE 12425), (sym_attribute, STATE 6836),
    (sym_subscript, STATE 6838), (sym_call, STATE 6845), (sym_mlir_type, STATE 7017),
    (sym_list, STATE 7017), (sym_set, STATE 7017), (sym_tuple, STATE 7017),
    (sym_dictionary, STATE 7017), (sym_struct_literal, STATE 7017),
    (sym_list_comprehension, STATE 7017), (sym_dictionary_comprehension, STATE 7017),
    (sym_set_comprehension, STATE 7017), (sym_generator_expression, STATE 7017),
    (sym_parenthesized_expression, STATE 7017), (sym_conditional_expression, STATE 7969),
    (sym_concatenated_string, STATE 7017), (sym_string, STATE 6751), (sym_await, STATE 7017),
    (aux_sym_module_repeat1, STATE 925), (aux_sym_decorated_definition_repeat1, STATE 3670),
    (sym_identifier, ACTIONS 9), (anon_sym_import, ACTIONS 11), (anon_sym_from, ACTIONS 13),
    (anon_sym_LPAREN, ACTIONS 15), (anon_sym_STAR, ACTIONS 17), (anon_sym_print, ACTIONS 19),
    (anon_sym_comptime, ACTIONS 99), (anon_sym_assert, ACTIONS 23),
    (anon_sym___comptime_assert, ACTIONS 25), (anon_sym_return, ACTIONS 27),
    (anon_sym_del, ACTIONS 29), (anon_sym_raise, ACTIONS 31), (anon_sym_pass, ACTIONS 33),
    (anon_sym_break, ACTIONS 35), (anon_sym_continue, ACTIONS 37),
    (anon_sym___extension, ACTIONS 101), (anon_sym___mlir_region, ACTIONS 103),
    (anon_sym_if, ACTIONS 105), (anon_sym_match, ACTIONS 107), (anon_sym_async, ACTIONS 109),
    (anon_sym_for, ACTIONS 111), (anon_sym_while, ACTIONS 113), (anon_sym_try, ACTIONS 115),
    (anon_sym_with, ACTIONS 117), (anon_sym_def, ACTIONS 119), (anon_sym_fn, ACTIONS 119),
    (anon_sym_LBRACK, ACTIONS 59), (anon_sym_LBRACE, ACTIONS 61), (anon_sym_global, ACTIONS 63),
    (anon_sym_nonlocal, ACTIONS 65), (anon_sym_exec, ACTIONS 67), (anon_sym_type, ACTIONS 69),
    (anon_sym_class, ACTIONS 121), (anon_sym_struct, ACTIONS 121), (anon_sym_mut, ACTIONS 73),
    (anon_sym_out, ACTIONS 73), (anon_sym_trait, ACTIONS 123), (anon_sym_AT, ACTIONS 77),
    (anon_sym_DASH, ACTIONS 79), (anon_sym_PLUS, ACTIONS 79), (anon_sym_ref, ACTIONS 81),
    (anon_sym_var, ACTIONS 81), (anon_sym_not, ACTIONS 83), (anon_sym_TILDE, ACTIONS 79),
    (anon_sym_lambda, ACTIONS 85), (anon_sym_yield, ACTIONS 87), (sym_ellipsis, ACTIONS 89),
    (anon_sym___mlir_type, ACTIONS 91), (sym_integer, ACTIONS 93), (sym_float, ACTIONS 89),
    (anon_sym_await, ACTIONS 95), (sym_true, ACTIONS 93), (sym_false, ACTIONS 93),
    (sym_none, ACTIONS 93), (sym_comment, ACTIONS 3), (sym_line_continuation, ACTIONS 3),
    (sym__dedent, ACTIONS 129), (sym_string_start, ACTIONS 97)]"

definition parse_table_319 :: "(nat \<times> nat) list" where "parse_table_319 = [
    (sym__statement, STATE 925), (sym__simple_statements, STATE 925),
    (sym_import_statement, STATE 11814), (sym_future_import_statement, STATE 11814),
    (sym_import_from_statement, STATE 11814), (sym_print_statement, STATE 11814),
    (sym_assert_statement, STATE 11814), (sym_comptime_assert_statement, STATE 11814),
    (sym_expression_statement, STATE 11814), (sym_tuple_expression, STATE 12425),
    (sym_named_expression, STATE 7969), (sym__named_expression_lhs, STATE 12752),
    (sym_return_statement, STATE 11814), (sym_delete_statement, STATE 11814),
    (sym_raise_statement, STATE 11814), (sym_pass_statement, STATE 11814),
    (sym_break_statement, STATE 11814), (sym_continue_statement, STATE 11814),
    (sym_extension_definition, STATE 925), (sym_mlir_region, STATE 925),
    (sym_comptime_statement, STATE 925), (sym_if_statement, STATE 925),
    (sym_match_statement, STATE 925), (sym_for_statement, STATE 925),
    (sym_while_statement, STATE 925), (sym_try_statement, STATE 925),
    (sym_with_statement, STATE 925), (sym_function_definition, STATE 925),
    (sym_global_statement, STATE 11814), (sym_nonlocal_statement, STATE 11814),
    (sym_exec_statement, STATE 11814), (sym_type_alias_statement, STATE 11814),
    (sym_parameterized_alias_statement, STATE 11814), (sym_class_definition, STATE 925),
    (sym_trait_definition, STATE 925), (sym_decorated_definition, STATE 925),
    (sym_decorator, STATE 3670), (sym_block, STATE 5950), (sym_pattern, STATE 8086),
    (sym_tuple_pattern, STATE 8101), (sym_list_pattern, STATE 8101),
    (sym_list_splat_pattern, STATE 6819), (sym_as_pattern, STATE 7969),
    (sym_expression, STATE 9883), (sym_primary_expression, STATE 7326),
    (sym_comptime_expression, STATE 7017), (sym_transfer_expression, STATE 7017),
    (sym_not_operator, STATE 7969), (sym_boolean_operator, STATE 7969),
    (sym_binary_operator, STATE 7017), (sym_unary_operator, STATE 7017),
    (sym_comparison_operator, STATE 7969), (sym_lambda, STATE 7969),
    (sym_assignment, STATE 12425), (sym_augmented_assignment, STATE 12425),
    (sym_pattern_list, STATE 8578), (sym_yield, STATE 12425), (sym_attribute, STATE 6836),
    (sym_subscript, STATE 6838), (sym_call, STATE 6845), (sym_mlir_type, STATE 7017),
    (sym_list, STATE 7017), (sym_set, STATE 7017), (sym_tuple, STATE 7017),
    (sym_dictionary, STATE 7017), (sym_struct_literal, STATE 7017),
    (sym_list_comprehension, STATE 7017), (sym_dictionary_comprehension, STATE 7017),
    (sym_set_comprehension, STATE 7017), (sym_generator_expression, STATE 7017),
    (sym_parenthesized_expression, STATE 7017), (sym_conditional_expression, STATE 7969),
    (sym_concatenated_string, STATE 7017), (sym_string, STATE 6751), (sym_await, STATE 7017),
    (aux_sym_module_repeat1, STATE 925), (aux_sym_decorated_definition_repeat1, STATE 3670),
    (sym_identifier, ACTIONS 9), (anon_sym_import, ACTIONS 11), (anon_sym_from, ACTIONS 13),
    (anon_sym_LPAREN, ACTIONS 15), (anon_sym_STAR, ACTIONS 17), (anon_sym_print, ACTIONS 19),
    (anon_sym_comptime, ACTIONS 99), (anon_sym_assert, ACTIONS 23),
    (anon_sym___comptime_assert, ACTIONS 25), (anon_sym_return, ACTIONS 27),
    (anon_sym_del, ACTIONS 29), (anon_sym_raise, ACTIONS 31), (anon_sym_pass, ACTIONS 33),
    (anon_sym_break, ACTIONS 35), (anon_sym_continue, ACTIONS 37),
    (anon_sym___extension, ACTIONS 101), (anon_sym___mlir_region, ACTIONS 103),
    (anon_sym_if, ACTIONS 105), (anon_sym_match, ACTIONS 107), (anon_sym_async, ACTIONS 109),
    (anon_sym_for, ACTIONS 111), (anon_sym_while, ACTIONS 113), (anon_sym_try, ACTIONS 115),
    (anon_sym_with, ACTIONS 117), (anon_sym_def, ACTIONS 119), (anon_sym_fn, ACTIONS 119),
    (anon_sym_LBRACK, ACTIONS 59), (anon_sym_LBRACE, ACTIONS 61), (anon_sym_global, ACTIONS 63),
    (anon_sym_nonlocal, ACTIONS 65), (anon_sym_exec, ACTIONS 67), (anon_sym_type, ACTIONS 69),
    (anon_sym_class, ACTIONS 121), (anon_sym_struct, ACTIONS 121), (anon_sym_mut, ACTIONS 73),
    (anon_sym_out, ACTIONS 73), (anon_sym_trait, ACTIONS 123), (anon_sym_AT, ACTIONS 77),
    (anon_sym_DASH, ACTIONS 79), (anon_sym_PLUS, ACTIONS 79), (anon_sym_ref, ACTIONS 81),
    (anon_sym_var, ACTIONS 81), (anon_sym_not, ACTIONS 83), (anon_sym_TILDE, ACTIONS 79),
    (anon_sym_lambda, ACTIONS 85), (anon_sym_yield, ACTIONS 87), (sym_ellipsis, ACTIONS 89),
    (anon_sym___mlir_type, ACTIONS 91), (sym_integer, ACTIONS 93), (sym_float, ACTIONS 89),
    (anon_sym_await, ACTIONS 95), (sym_true, ACTIONS 93), (sym_false, ACTIONS 93),
    (sym_none, ACTIONS 93), (sym_comment, ACTIONS 3), (sym_line_continuation, ACTIONS 3),
    (sym__dedent, ACTIONS 129), (sym_string_start, ACTIONS 97)]"

definition parse_table_320 :: "(nat \<times> nat) list" where "parse_table_320 = [
    (sym__statement, STATE 925), (sym__simple_statements, STATE 925),
    (sym_import_statement, STATE 11814), (sym_future_import_statement, STATE 11814),
    (sym_import_from_statement, STATE 11814), (sym_print_statement, STATE 11814),
    (sym_assert_statement, STATE 11814), (sym_comptime_assert_statement, STATE 11814),
    (sym_expression_statement, STATE 11814), (sym_tuple_expression, STATE 12425),
    (sym_named_expression, STATE 7969), (sym__named_expression_lhs, STATE 12752),
    (sym_return_statement, STATE 11814), (sym_delete_statement, STATE 11814),
    (sym_raise_statement, STATE 11814), (sym_pass_statement, STATE 11814),
    (sym_break_statement, STATE 11814), (sym_continue_statement, STATE 11814),
    (sym_extension_definition, STATE 925), (sym_mlir_region, STATE 925),
    (sym_comptime_statement, STATE 925), (sym_if_statement, STATE 925),
    (sym_match_statement, STATE 925), (sym_for_statement, STATE 925),
    (sym_while_statement, STATE 925), (sym_try_statement, STATE 925),
    (sym_with_statement, STATE 925), (sym_function_definition, STATE 925),
    (sym_global_statement, STATE 11814), (sym_nonlocal_statement, STATE 11814),
    (sym_exec_statement, STATE 11814), (sym_type_alias_statement, STATE 11814),
    (sym_parameterized_alias_statement, STATE 11814), (sym_class_definition, STATE 925),
    (sym_trait_definition, STATE 925), (sym_decorated_definition, STATE 925),
    (sym_decorator, STATE 3670), (sym_block, STATE 5951), (sym_pattern, STATE 8086),
    (sym_tuple_pattern, STATE 8101), (sym_list_pattern, STATE 8101),
    (sym_list_splat_pattern, STATE 6819), (sym_as_pattern, STATE 7969),
    (sym_expression, STATE 9883), (sym_primary_expression, STATE 7326),
    (sym_comptime_expression, STATE 7017), (sym_transfer_expression, STATE 7017),
    (sym_not_operator, STATE 7969), (sym_boolean_operator, STATE 7969),
    (sym_binary_operator, STATE 7017), (sym_unary_operator, STATE 7017),
    (sym_comparison_operator, STATE 7969), (sym_lambda, STATE 7969),
    (sym_assignment, STATE 12425), (sym_augmented_assignment, STATE 12425),
    (sym_pattern_list, STATE 8578), (sym_yield, STATE 12425), (sym_attribute, STATE 6836),
    (sym_subscript, STATE 6838), (sym_call, STATE 6845), (sym_mlir_type, STATE 7017),
    (sym_list, STATE 7017), (sym_set, STATE 7017), (sym_tuple, STATE 7017),
    (sym_dictionary, STATE 7017), (sym_struct_literal, STATE 7017),
    (sym_list_comprehension, STATE 7017), (sym_dictionary_comprehension, STATE 7017),
    (sym_set_comprehension, STATE 7017), (sym_generator_expression, STATE 7017),
    (sym_parenthesized_expression, STATE 7017), (sym_conditional_expression, STATE 7969),
    (sym_concatenated_string, STATE 7017), (sym_string, STATE 6751), (sym_await, STATE 7017),
    (aux_sym_module_repeat1, STATE 925), (aux_sym_decorated_definition_repeat1, STATE 3670),
    (sym_identifier, ACTIONS 9), (anon_sym_import, ACTIONS 11), (anon_sym_from, ACTIONS 13),
    (anon_sym_LPAREN, ACTIONS 15), (anon_sym_STAR, ACTIONS 17), (anon_sym_print, ACTIONS 19),
    (anon_sym_comptime, ACTIONS 99), (anon_sym_assert, ACTIONS 23),
    (anon_sym___comptime_assert, ACTIONS 25), (anon_sym_return, ACTIONS 27),
    (anon_sym_del, ACTIONS 29), (anon_sym_raise, ACTIONS 31), (anon_sym_pass, ACTIONS 33),
    (anon_sym_break, ACTIONS 35), (anon_sym_continue, ACTIONS 37),
    (anon_sym___extension, ACTIONS 101), (anon_sym___mlir_region, ACTIONS 103),
    (anon_sym_if, ACTIONS 105), (anon_sym_match, ACTIONS 107), (anon_sym_async, ACTIONS 109),
    (anon_sym_for, ACTIONS 111), (anon_sym_while, ACTIONS 113), (anon_sym_try, ACTIONS 115),
    (anon_sym_with, ACTIONS 117), (anon_sym_def, ACTIONS 119), (anon_sym_fn, ACTIONS 119),
    (anon_sym_LBRACK, ACTIONS 59), (anon_sym_LBRACE, ACTIONS 61), (anon_sym_global, ACTIONS 63),
    (anon_sym_nonlocal, ACTIONS 65), (anon_sym_exec, ACTIONS 67), (anon_sym_type, ACTIONS 69),
    (anon_sym_class, ACTIONS 121), (anon_sym_struct, ACTIONS 121), (anon_sym_mut, ACTIONS 73),
    (anon_sym_out, ACTIONS 73), (anon_sym_trait, ACTIONS 123), (anon_sym_AT, ACTIONS 77),
    (anon_sym_DASH, ACTIONS 79), (anon_sym_PLUS, ACTIONS 79), (anon_sym_ref, ACTIONS 81),
    (anon_sym_var, ACTIONS 81), (anon_sym_not, ACTIONS 83), (anon_sym_TILDE, ACTIONS 79),
    (anon_sym_lambda, ACTIONS 85), (anon_sym_yield, ACTIONS 87), (sym_ellipsis, ACTIONS 89),
    (anon_sym___mlir_type, ACTIONS 91), (sym_integer, ACTIONS 93), (sym_float, ACTIONS 89),
    (anon_sym_await, ACTIONS 95), (sym_true, ACTIONS 93), (sym_false, ACTIONS 93),
    (sym_none, ACTIONS 93), (sym_comment, ACTIONS 3), (sym_line_continuation, ACTIONS 3),
    (sym__dedent, ACTIONS 129), (sym_string_start, ACTIONS 97)]"

definition parse_table_321 :: "(nat \<times> nat) list" where "parse_table_321 = [
    (sym__statement, STATE 925), (sym__simple_statements, STATE 925),
    (sym_import_statement, STATE 11814), (sym_future_import_statement, STATE 11814),
    (sym_import_from_statement, STATE 11814), (sym_print_statement, STATE 11814),
    (sym_assert_statement, STATE 11814), (sym_comptime_assert_statement, STATE 11814),
    (sym_expression_statement, STATE 11814), (sym_tuple_expression, STATE 12425),
    (sym_named_expression, STATE 7969), (sym__named_expression_lhs, STATE 12752),
    (sym_return_statement, STATE 11814), (sym_delete_statement, STATE 11814),
    (sym_raise_statement, STATE 11814), (sym_pass_statement, STATE 11814),
    (sym_break_statement, STATE 11814), (sym_continue_statement, STATE 11814),
    (sym_extension_definition, STATE 925), (sym_mlir_region, STATE 925),
    (sym_comptime_statement, STATE 925), (sym_if_statement, STATE 925),
    (sym_match_statement, STATE 925), (sym_for_statement, STATE 925),
    (sym_while_statement, STATE 925), (sym_try_statement, STATE 925),
    (sym_with_statement, STATE 925), (sym_function_definition, STATE 925),
    (sym_global_statement, STATE 11814), (sym_nonlocal_statement, STATE 11814),
    (sym_exec_statement, STATE 11814), (sym_type_alias_statement, STATE 11814),
    (sym_parameterized_alias_statement, STATE 11814), (sym_class_definition, STATE 925),
    (sym_trait_definition, STATE 925), (sym_decorated_definition, STATE 925),
    (sym_decorator, STATE 3670), (sym_block, STATE 5954), (sym_pattern, STATE 8086),
    (sym_tuple_pattern, STATE 8101), (sym_list_pattern, STATE 8101),
    (sym_list_splat_pattern, STATE 6819), (sym_as_pattern, STATE 7969),
    (sym_expression, STATE 9883), (sym_primary_expression, STATE 7326),
    (sym_comptime_expression, STATE 7017), (sym_transfer_expression, STATE 7017),
    (sym_not_operator, STATE 7969), (sym_boolean_operator, STATE 7969),
    (sym_binary_operator, STATE 7017), (sym_unary_operator, STATE 7017),
    (sym_comparison_operator, STATE 7969), (sym_lambda, STATE 7969),
    (sym_assignment, STATE 12425), (sym_augmented_assignment, STATE 12425),
    (sym_pattern_list, STATE 8578), (sym_yield, STATE 12425), (sym_attribute, STATE 6836),
    (sym_subscript, STATE 6838), (sym_call, STATE 6845), (sym_mlir_type, STATE 7017),
    (sym_list, STATE 7017), (sym_set, STATE 7017), (sym_tuple, STATE 7017),
    (sym_dictionary, STATE 7017), (sym_struct_literal, STATE 7017),
    (sym_list_comprehension, STATE 7017), (sym_dictionary_comprehension, STATE 7017),
    (sym_set_comprehension, STATE 7017), (sym_generator_expression, STATE 7017),
    (sym_parenthesized_expression, STATE 7017), (sym_conditional_expression, STATE 7969),
    (sym_concatenated_string, STATE 7017), (sym_string, STATE 6751), (sym_await, STATE 7017),
    (aux_sym_module_repeat1, STATE 925), (aux_sym_decorated_definition_repeat1, STATE 3670),
    (sym_identifier, ACTIONS 9), (anon_sym_import, ACTIONS 11), (anon_sym_from, ACTIONS 13),
    (anon_sym_LPAREN, ACTIONS 15), (anon_sym_STAR, ACTIONS 17), (anon_sym_print, ACTIONS 19),
    (anon_sym_comptime, ACTIONS 99), (anon_sym_assert, ACTIONS 23),
    (anon_sym___comptime_assert, ACTIONS 25), (anon_sym_return, ACTIONS 27),
    (anon_sym_del, ACTIONS 29), (anon_sym_raise, ACTIONS 31), (anon_sym_pass, ACTIONS 33),
    (anon_sym_break, ACTIONS 35), (anon_sym_continue, ACTIONS 37),
    (anon_sym___extension, ACTIONS 101), (anon_sym___mlir_region, ACTIONS 103),
    (anon_sym_if, ACTIONS 105), (anon_sym_match, ACTIONS 107), (anon_sym_async, ACTIONS 109),
    (anon_sym_for, ACTIONS 111), (anon_sym_while, ACTIONS 113), (anon_sym_try, ACTIONS 115),
    (anon_sym_with, ACTIONS 117), (anon_sym_def, ACTIONS 119), (anon_sym_fn, ACTIONS 119),
    (anon_sym_LBRACK, ACTIONS 59), (anon_sym_LBRACE, ACTIONS 61), (anon_sym_global, ACTIONS 63),
    (anon_sym_nonlocal, ACTIONS 65), (anon_sym_exec, ACTIONS 67), (anon_sym_type, ACTIONS 69),
    (anon_sym_class, ACTIONS 121), (anon_sym_struct, ACTIONS 121), (anon_sym_mut, ACTIONS 73),
    (anon_sym_out, ACTIONS 73), (anon_sym_trait, ACTIONS 123), (anon_sym_AT, ACTIONS 77),
    (anon_sym_DASH, ACTIONS 79), (anon_sym_PLUS, ACTIONS 79), (anon_sym_ref, ACTIONS 81),
    (anon_sym_var, ACTIONS 81), (anon_sym_not, ACTIONS 83), (anon_sym_TILDE, ACTIONS 79),
    (anon_sym_lambda, ACTIONS 85), (anon_sym_yield, ACTIONS 87), (sym_ellipsis, ACTIONS 89),
    (anon_sym___mlir_type, ACTIONS 91), (sym_integer, ACTIONS 93), (sym_float, ACTIONS 89),
    (anon_sym_await, ACTIONS 95), (sym_true, ACTIONS 93), (sym_false, ACTIONS 93),
    (sym_none, ACTIONS 93), (sym_comment, ACTIONS 3), (sym_line_continuation, ACTIONS 3),
    (sym__dedent, ACTIONS 129), (sym_string_start, ACTIONS 97)]"

definition parse_table_322 :: "(nat \<times> nat) list" where "parse_table_322 = [
    (sym__statement, STATE 925), (sym__simple_statements, STATE 925),
    (sym_import_statement, STATE 11814), (sym_future_import_statement, STATE 11814),
    (sym_import_from_statement, STATE 11814), (sym_print_statement, STATE 11814),
    (sym_assert_statement, STATE 11814), (sym_comptime_assert_statement, STATE 11814),
    (sym_expression_statement, STATE 11814), (sym_tuple_expression, STATE 12425),
    (sym_named_expression, STATE 7969), (sym__named_expression_lhs, STATE 12752),
    (sym_return_statement, STATE 11814), (sym_delete_statement, STATE 11814),
    (sym_raise_statement, STATE 11814), (sym_pass_statement, STATE 11814),
    (sym_break_statement, STATE 11814), (sym_continue_statement, STATE 11814),
    (sym_extension_definition, STATE 925), (sym_mlir_region, STATE 925),
    (sym_comptime_statement, STATE 925), (sym_if_statement, STATE 925),
    (sym_match_statement, STATE 925), (sym_for_statement, STATE 925),
    (sym_while_statement, STATE 925), (sym_try_statement, STATE 925),
    (sym_with_statement, STATE 925), (sym_function_definition, STATE 925),
    (sym_global_statement, STATE 11814), (sym_nonlocal_statement, STATE 11814),
    (sym_exec_statement, STATE 11814), (sym_type_alias_statement, STATE 11814),
    (sym_parameterized_alias_statement, STATE 11814), (sym_class_definition, STATE 925),
    (sym_trait_definition, STATE 925), (sym_decorated_definition, STATE 925),
    (sym_decorator, STATE 3670), (sym_block, STATE 5969), (sym_pattern, STATE 8086),
    (sym_tuple_pattern, STATE 8101), (sym_list_pattern, STATE 8101),
    (sym_list_splat_pattern, STATE 6819), (sym_as_pattern, STATE 7969),
    (sym_expression, STATE 9883), (sym_primary_expression, STATE 7326),
    (sym_comptime_expression, STATE 7017), (sym_transfer_expression, STATE 7017),
    (sym_not_operator, STATE 7969), (sym_boolean_operator, STATE 7969),
    (sym_binary_operator, STATE 7017), (sym_unary_operator, STATE 7017),
    (sym_comparison_operator, STATE 7969), (sym_lambda, STATE 7969),
    (sym_assignment, STATE 12425), (sym_augmented_assignment, STATE 12425),
    (sym_pattern_list, STATE 8578), (sym_yield, STATE 12425), (sym_attribute, STATE 6836),
    (sym_subscript, STATE 6838), (sym_call, STATE 6845), (sym_mlir_type, STATE 7017),
    (sym_list, STATE 7017), (sym_set, STATE 7017), (sym_tuple, STATE 7017),
    (sym_dictionary, STATE 7017), (sym_struct_literal, STATE 7017),
    (sym_list_comprehension, STATE 7017), (sym_dictionary_comprehension, STATE 7017),
    (sym_set_comprehension, STATE 7017), (sym_generator_expression, STATE 7017),
    (sym_parenthesized_expression, STATE 7017), (sym_conditional_expression, STATE 7969),
    (sym_concatenated_string, STATE 7017), (sym_string, STATE 6751), (sym_await, STATE 7017),
    (aux_sym_module_repeat1, STATE 925), (aux_sym_decorated_definition_repeat1, STATE 3670),
    (sym_identifier, ACTIONS 9), (anon_sym_import, ACTIONS 11), (anon_sym_from, ACTIONS 13),
    (anon_sym_LPAREN, ACTIONS 15), (anon_sym_STAR, ACTIONS 17), (anon_sym_print, ACTIONS 19),
    (anon_sym_comptime, ACTIONS 99), (anon_sym_assert, ACTIONS 23),
    (anon_sym___comptime_assert, ACTIONS 25), (anon_sym_return, ACTIONS 27),
    (anon_sym_del, ACTIONS 29), (anon_sym_raise, ACTIONS 31), (anon_sym_pass, ACTIONS 33),
    (anon_sym_break, ACTIONS 35), (anon_sym_continue, ACTIONS 37),
    (anon_sym___extension, ACTIONS 101), (anon_sym___mlir_region, ACTIONS 103),
    (anon_sym_if, ACTIONS 105), (anon_sym_match, ACTIONS 107), (anon_sym_async, ACTIONS 109),
    (anon_sym_for, ACTIONS 111), (anon_sym_while, ACTIONS 113), (anon_sym_try, ACTIONS 115),
    (anon_sym_with, ACTIONS 117), (anon_sym_def, ACTIONS 119), (anon_sym_fn, ACTIONS 119),
    (anon_sym_LBRACK, ACTIONS 59), (anon_sym_LBRACE, ACTIONS 61), (anon_sym_global, ACTIONS 63),
    (anon_sym_nonlocal, ACTIONS 65), (anon_sym_exec, ACTIONS 67), (anon_sym_type, ACTIONS 69),
    (anon_sym_class, ACTIONS 121), (anon_sym_struct, ACTIONS 121), (anon_sym_mut, ACTIONS 73),
    (anon_sym_out, ACTIONS 73), (anon_sym_trait, ACTIONS 123), (anon_sym_AT, ACTIONS 77),
    (anon_sym_DASH, ACTIONS 79), (anon_sym_PLUS, ACTIONS 79), (anon_sym_ref, ACTIONS 81),
    (anon_sym_var, ACTIONS 81), (anon_sym_not, ACTIONS 83), (anon_sym_TILDE, ACTIONS 79),
    (anon_sym_lambda, ACTIONS 85), (anon_sym_yield, ACTIONS 87), (sym_ellipsis, ACTIONS 89),
    (anon_sym___mlir_type, ACTIONS 91), (sym_integer, ACTIONS 93), (sym_float, ACTIONS 89),
    (anon_sym_await, ACTIONS 95), (sym_true, ACTIONS 93), (sym_false, ACTIONS 93),
    (sym_none, ACTIONS 93), (sym_comment, ACTIONS 3), (sym_line_continuation, ACTIONS 3),
    (sym__dedent, ACTIONS 129), (sym_string_start, ACTIONS 97)]"

definition parse_table_323 :: "(nat \<times> nat) list" where "parse_table_323 = [
    (sym__statement, STATE 925), (sym__simple_statements, STATE 925),
    (sym_import_statement, STATE 11814), (sym_future_import_statement, STATE 11814),
    (sym_import_from_statement, STATE 11814), (sym_print_statement, STATE 11814),
    (sym_assert_statement, STATE 11814), (sym_comptime_assert_statement, STATE 11814),
    (sym_expression_statement, STATE 11814), (sym_tuple_expression, STATE 12425),
    (sym_named_expression, STATE 7969), (sym__named_expression_lhs, STATE 12752),
    (sym_return_statement, STATE 11814), (sym_delete_statement, STATE 11814),
    (sym_raise_statement, STATE 11814), (sym_pass_statement, STATE 11814),
    (sym_break_statement, STATE 11814), (sym_continue_statement, STATE 11814),
    (sym_extension_definition, STATE 925), (sym_mlir_region, STATE 925),
    (sym_comptime_statement, STATE 925), (sym_if_statement, STATE 925),
    (sym_match_statement, STATE 925), (sym_for_statement, STATE 925),
    (sym_while_statement, STATE 925), (sym_try_statement, STATE 925),
    (sym_with_statement, STATE 925), (sym_function_definition, STATE 925),
    (sym_global_statement, STATE 11814), (sym_nonlocal_statement, STATE 11814),
    (sym_exec_statement, STATE 11814), (sym_type_alias_statement, STATE 11814),
    (sym_parameterized_alias_statement, STATE 11814), (sym_class_definition, STATE 925),
    (sym_trait_definition, STATE 925), (sym_decorated_definition, STATE 925),
    (sym_decorator, STATE 3670), (sym_block, STATE 5983), (sym_pattern, STATE 8086),
    (sym_tuple_pattern, STATE 8101), (sym_list_pattern, STATE 8101),
    (sym_list_splat_pattern, STATE 6819), (sym_as_pattern, STATE 7969),
    (sym_expression, STATE 9883), (sym_primary_expression, STATE 7326),
    (sym_comptime_expression, STATE 7017), (sym_transfer_expression, STATE 7017),
    (sym_not_operator, STATE 7969), (sym_boolean_operator, STATE 7969),
    (sym_binary_operator, STATE 7017), (sym_unary_operator, STATE 7017),
    (sym_comparison_operator, STATE 7969), (sym_lambda, STATE 7969),
    (sym_assignment, STATE 12425), (sym_augmented_assignment, STATE 12425),
    (sym_pattern_list, STATE 8578), (sym_yield, STATE 12425), (sym_attribute, STATE 6836),
    (sym_subscript, STATE 6838), (sym_call, STATE 6845), (sym_mlir_type, STATE 7017),
    (sym_list, STATE 7017), (sym_set, STATE 7017), (sym_tuple, STATE 7017),
    (sym_dictionary, STATE 7017), (sym_struct_literal, STATE 7017),
    (sym_list_comprehension, STATE 7017), (sym_dictionary_comprehension, STATE 7017),
    (sym_set_comprehension, STATE 7017), (sym_generator_expression, STATE 7017),
    (sym_parenthesized_expression, STATE 7017), (sym_conditional_expression, STATE 7969),
    (sym_concatenated_string, STATE 7017), (sym_string, STATE 6751), (sym_await, STATE 7017),
    (aux_sym_module_repeat1, STATE 925), (aux_sym_decorated_definition_repeat1, STATE 3670),
    (sym_identifier, ACTIONS 9), (anon_sym_import, ACTIONS 11), (anon_sym_from, ACTIONS 13),
    (anon_sym_LPAREN, ACTIONS 15), (anon_sym_STAR, ACTIONS 17), (anon_sym_print, ACTIONS 19),
    (anon_sym_comptime, ACTIONS 99), (anon_sym_assert, ACTIONS 23),
    (anon_sym___comptime_assert, ACTIONS 25), (anon_sym_return, ACTIONS 27),
    (anon_sym_del, ACTIONS 29), (anon_sym_raise, ACTIONS 31), (anon_sym_pass, ACTIONS 33),
    (anon_sym_break, ACTIONS 35), (anon_sym_continue, ACTIONS 37),
    (anon_sym___extension, ACTIONS 101), (anon_sym___mlir_region, ACTIONS 103),
    (anon_sym_if, ACTIONS 105), (anon_sym_match, ACTIONS 107), (anon_sym_async, ACTIONS 109),
    (anon_sym_for, ACTIONS 111), (anon_sym_while, ACTIONS 113), (anon_sym_try, ACTIONS 115),
    (anon_sym_with, ACTIONS 117), (anon_sym_def, ACTIONS 119), (anon_sym_fn, ACTIONS 119),
    (anon_sym_LBRACK, ACTIONS 59), (anon_sym_LBRACE, ACTIONS 61), (anon_sym_global, ACTIONS 63),
    (anon_sym_nonlocal, ACTIONS 65), (anon_sym_exec, ACTIONS 67), (anon_sym_type, ACTIONS 69),
    (anon_sym_class, ACTIONS 121), (anon_sym_struct, ACTIONS 121), (anon_sym_mut, ACTIONS 73),
    (anon_sym_out, ACTIONS 73), (anon_sym_trait, ACTIONS 123), (anon_sym_AT, ACTIONS 77),
    (anon_sym_DASH, ACTIONS 79), (anon_sym_PLUS, ACTIONS 79), (anon_sym_ref, ACTIONS 81),
    (anon_sym_var, ACTIONS 81), (anon_sym_not, ACTIONS 83), (anon_sym_TILDE, ACTIONS 79),
    (anon_sym_lambda, ACTIONS 85), (anon_sym_yield, ACTIONS 87), (sym_ellipsis, ACTIONS 89),
    (anon_sym___mlir_type, ACTIONS 91), (sym_integer, ACTIONS 93), (sym_float, ACTIONS 89),
    (anon_sym_await, ACTIONS 95), (sym_true, ACTIONS 93), (sym_false, ACTIONS 93),
    (sym_none, ACTIONS 93), (sym_comment, ACTIONS 3), (sym_line_continuation, ACTIONS 3),
    (sym__dedent, ACTIONS 129), (sym_string_start, ACTIONS 97)]"

definition parse_table_324 :: "(nat \<times> nat) list" where "parse_table_324 = [
    (sym__statement, STATE 925), (sym__simple_statements, STATE 925),
    (sym_import_statement, STATE 11814), (sym_future_import_statement, STATE 11814),
    (sym_import_from_statement, STATE 11814), (sym_print_statement, STATE 11814),
    (sym_assert_statement, STATE 11814), (sym_comptime_assert_statement, STATE 11814),
    (sym_expression_statement, STATE 11814), (sym_tuple_expression, STATE 12425),
    (sym_named_expression, STATE 7969), (sym__named_expression_lhs, STATE 12752),
    (sym_return_statement, STATE 11814), (sym_delete_statement, STATE 11814),
    (sym_raise_statement, STATE 11814), (sym_pass_statement, STATE 11814),
    (sym_break_statement, STATE 11814), (sym_continue_statement, STATE 11814),
    (sym_extension_definition, STATE 925), (sym_mlir_region, STATE 925),
    (sym_comptime_statement, STATE 925), (sym_if_statement, STATE 925),
    (sym_match_statement, STATE 925), (sym_for_statement, STATE 925),
    (sym_while_statement, STATE 925), (sym_try_statement, STATE 925),
    (sym_with_statement, STATE 925), (sym_function_definition, STATE 925),
    (sym_global_statement, STATE 11814), (sym_nonlocal_statement, STATE 11814),
    (sym_exec_statement, STATE 11814), (sym_type_alias_statement, STATE 11814),
    (sym_parameterized_alias_statement, STATE 11814), (sym_class_definition, STATE 925),
    (sym_trait_definition, STATE 925), (sym_decorated_definition, STATE 925),
    (sym_decorator, STATE 3670), (sym_block, STATE 5985), (sym_pattern, STATE 8086),
    (sym_tuple_pattern, STATE 8101), (sym_list_pattern, STATE 8101),
    (sym_list_splat_pattern, STATE 6819), (sym_as_pattern, STATE 7969),
    (sym_expression, STATE 9883), (sym_primary_expression, STATE 7326),
    (sym_comptime_expression, STATE 7017), (sym_transfer_expression, STATE 7017),
    (sym_not_operator, STATE 7969), (sym_boolean_operator, STATE 7969),
    (sym_binary_operator, STATE 7017), (sym_unary_operator, STATE 7017),
    (sym_comparison_operator, STATE 7969), (sym_lambda, STATE 7969),
    (sym_assignment, STATE 12425), (sym_augmented_assignment, STATE 12425),
    (sym_pattern_list, STATE 8578), (sym_yield, STATE 12425), (sym_attribute, STATE 6836),
    (sym_subscript, STATE 6838), (sym_call, STATE 6845), (sym_mlir_type, STATE 7017),
    (sym_list, STATE 7017), (sym_set, STATE 7017), (sym_tuple, STATE 7017),
    (sym_dictionary, STATE 7017), (sym_struct_literal, STATE 7017),
    (sym_list_comprehension, STATE 7017), (sym_dictionary_comprehension, STATE 7017),
    (sym_set_comprehension, STATE 7017), (sym_generator_expression, STATE 7017),
    (sym_parenthesized_expression, STATE 7017), (sym_conditional_expression, STATE 7969),
    (sym_concatenated_string, STATE 7017), (sym_string, STATE 6751), (sym_await, STATE 7017),
    (aux_sym_module_repeat1, STATE 925), (aux_sym_decorated_definition_repeat1, STATE 3670),
    (sym_identifier, ACTIONS 9), (anon_sym_import, ACTIONS 11), (anon_sym_from, ACTIONS 13),
    (anon_sym_LPAREN, ACTIONS 15), (anon_sym_STAR, ACTIONS 17), (anon_sym_print, ACTIONS 19),
    (anon_sym_comptime, ACTIONS 99), (anon_sym_assert, ACTIONS 23),
    (anon_sym___comptime_assert, ACTIONS 25), (anon_sym_return, ACTIONS 27),
    (anon_sym_del, ACTIONS 29), (anon_sym_raise, ACTIONS 31), (anon_sym_pass, ACTIONS 33),
    (anon_sym_break, ACTIONS 35), (anon_sym_continue, ACTIONS 37),
    (anon_sym___extension, ACTIONS 101), (anon_sym___mlir_region, ACTIONS 103),
    (anon_sym_if, ACTIONS 105), (anon_sym_match, ACTIONS 107), (anon_sym_async, ACTIONS 109),
    (anon_sym_for, ACTIONS 111), (anon_sym_while, ACTIONS 113), (anon_sym_try, ACTIONS 115),
    (anon_sym_with, ACTIONS 117), (anon_sym_def, ACTIONS 119), (anon_sym_fn, ACTIONS 119),
    (anon_sym_LBRACK, ACTIONS 59), (anon_sym_LBRACE, ACTIONS 61), (anon_sym_global, ACTIONS 63),
    (anon_sym_nonlocal, ACTIONS 65), (anon_sym_exec, ACTIONS 67), (anon_sym_type, ACTIONS 69),
    (anon_sym_class, ACTIONS 121), (anon_sym_struct, ACTIONS 121), (anon_sym_mut, ACTIONS 73),
    (anon_sym_out, ACTIONS 73), (anon_sym_trait, ACTIONS 123), (anon_sym_AT, ACTIONS 77),
    (anon_sym_DASH, ACTIONS 79), (anon_sym_PLUS, ACTIONS 79), (anon_sym_ref, ACTIONS 81),
    (anon_sym_var, ACTIONS 81), (anon_sym_not, ACTIONS 83), (anon_sym_TILDE, ACTIONS 79),
    (anon_sym_lambda, ACTIONS 85), (anon_sym_yield, ACTIONS 87), (sym_ellipsis, ACTIONS 89),
    (anon_sym___mlir_type, ACTIONS 91), (sym_integer, ACTIONS 93), (sym_float, ACTIONS 89),
    (anon_sym_await, ACTIONS 95), (sym_true, ACTIONS 93), (sym_false, ACTIONS 93),
    (sym_none, ACTIONS 93), (sym_comment, ACTIONS 3), (sym_line_continuation, ACTIONS 3),
    (sym__dedent, ACTIONS 129), (sym_string_start, ACTIONS 97)]"

definition parse_table_325 :: "(nat \<times> nat) list" where "parse_table_325 = [
    (sym__statement, STATE 925), (sym__simple_statements, STATE 925),
    (sym_import_statement, STATE 11814), (sym_future_import_statement, STATE 11814),
    (sym_import_from_statement, STATE 11814), (sym_print_statement, STATE 11814),
    (sym_assert_statement, STATE 11814), (sym_comptime_assert_statement, STATE 11814),
    (sym_expression_statement, STATE 11814), (sym_tuple_expression, STATE 12425),
    (sym_named_expression, STATE 7969), (sym__named_expression_lhs, STATE 12752),
    (sym_return_statement, STATE 11814), (sym_delete_statement, STATE 11814),
    (sym_raise_statement, STATE 11814), (sym_pass_statement, STATE 11814),
    (sym_break_statement, STATE 11814), (sym_continue_statement, STATE 11814),
    (sym_extension_definition, STATE 925), (sym_mlir_region, STATE 925),
    (sym_comptime_statement, STATE 925), (sym_if_statement, STATE 925),
    (sym_match_statement, STATE 925), (sym_for_statement, STATE 925),
    (sym_while_statement, STATE 925), (sym_try_statement, STATE 925),
    (sym_with_statement, STATE 925), (sym_function_definition, STATE 925),
    (sym_global_statement, STATE 11814), (sym_nonlocal_statement, STATE 11814),
    (sym_exec_statement, STATE 11814), (sym_type_alias_statement, STATE 11814),
    (sym_parameterized_alias_statement, STATE 11814), (sym_class_definition, STATE 925),
    (sym_trait_definition, STATE 925), (sym_decorated_definition, STATE 925),
    (sym_decorator, STATE 3670), (sym_block, STATE 6003), (sym_pattern, STATE 8086),
    (sym_tuple_pattern, STATE 8101), (sym_list_pattern, STATE 8101),
    (sym_list_splat_pattern, STATE 6819), (sym_as_pattern, STATE 7969),
    (sym_expression, STATE 9883), (sym_primary_expression, STATE 7326),
    (sym_comptime_expression, STATE 7017), (sym_transfer_expression, STATE 7017),
    (sym_not_operator, STATE 7969), (sym_boolean_operator, STATE 7969),
    (sym_binary_operator, STATE 7017), (sym_unary_operator, STATE 7017),
    (sym_comparison_operator, STATE 7969), (sym_lambda, STATE 7969),
    (sym_assignment, STATE 12425), (sym_augmented_assignment, STATE 12425),
    (sym_pattern_list, STATE 8578), (sym_yield, STATE 12425), (sym_attribute, STATE 6836),
    (sym_subscript, STATE 6838), (sym_call, STATE 6845), (sym_mlir_type, STATE 7017),
    (sym_list, STATE 7017), (sym_set, STATE 7017), (sym_tuple, STATE 7017),
    (sym_dictionary, STATE 7017), (sym_struct_literal, STATE 7017),
    (sym_list_comprehension, STATE 7017), (sym_dictionary_comprehension, STATE 7017),
    (sym_set_comprehension, STATE 7017), (sym_generator_expression, STATE 7017),
    (sym_parenthesized_expression, STATE 7017), (sym_conditional_expression, STATE 7969),
    (sym_concatenated_string, STATE 7017), (sym_string, STATE 6751), (sym_await, STATE 7017),
    (aux_sym_module_repeat1, STATE 925), (aux_sym_decorated_definition_repeat1, STATE 3670),
    (sym_identifier, ACTIONS 9), (anon_sym_import, ACTIONS 11), (anon_sym_from, ACTIONS 13),
    (anon_sym_LPAREN, ACTIONS 15), (anon_sym_STAR, ACTIONS 17), (anon_sym_print, ACTIONS 19),
    (anon_sym_comptime, ACTIONS 99), (anon_sym_assert, ACTIONS 23),
    (anon_sym___comptime_assert, ACTIONS 25), (anon_sym_return, ACTIONS 27),
    (anon_sym_del, ACTIONS 29), (anon_sym_raise, ACTIONS 31), (anon_sym_pass, ACTIONS 33),
    (anon_sym_break, ACTIONS 35), (anon_sym_continue, ACTIONS 37),
    (anon_sym___extension, ACTIONS 101), (anon_sym___mlir_region, ACTIONS 103),
    (anon_sym_if, ACTIONS 105), (anon_sym_match, ACTIONS 107), (anon_sym_async, ACTIONS 109),
    (anon_sym_for, ACTIONS 111), (anon_sym_while, ACTIONS 113), (anon_sym_try, ACTIONS 115),
    (anon_sym_with, ACTIONS 117), (anon_sym_def, ACTIONS 119), (anon_sym_fn, ACTIONS 119),
    (anon_sym_LBRACK, ACTIONS 59), (anon_sym_LBRACE, ACTIONS 61), (anon_sym_global, ACTIONS 63),
    (anon_sym_nonlocal, ACTIONS 65), (anon_sym_exec, ACTIONS 67), (anon_sym_type, ACTIONS 69),
    (anon_sym_class, ACTIONS 121), (anon_sym_struct, ACTIONS 121), (anon_sym_mut, ACTIONS 73),
    (anon_sym_out, ACTIONS 73), (anon_sym_trait, ACTIONS 123), (anon_sym_AT, ACTIONS 77),
    (anon_sym_DASH, ACTIONS 79), (anon_sym_PLUS, ACTIONS 79), (anon_sym_ref, ACTIONS 81),
    (anon_sym_var, ACTIONS 81), (anon_sym_not, ACTIONS 83), (anon_sym_TILDE, ACTIONS 79),
    (anon_sym_lambda, ACTIONS 85), (anon_sym_yield, ACTIONS 87), (sym_ellipsis, ACTIONS 89),
    (anon_sym___mlir_type, ACTIONS 91), (sym_integer, ACTIONS 93), (sym_float, ACTIONS 89),
    (anon_sym_await, ACTIONS 95), (sym_true, ACTIONS 93), (sym_false, ACTIONS 93),
    (sym_none, ACTIONS 93), (sym_comment, ACTIONS 3), (sym_line_continuation, ACTIONS 3),
    (sym__dedent, ACTIONS 129), (sym_string_start, ACTIONS 97)]"

definition parse_table_326 :: "(nat \<times> nat) list" where "parse_table_326 = [
    (sym__statement, STATE 925), (sym__simple_statements, STATE 925),
    (sym_import_statement, STATE 11814), (sym_future_import_statement, STATE 11814),
    (sym_import_from_statement, STATE 11814), (sym_print_statement, STATE 11814),
    (sym_assert_statement, STATE 11814), (sym_comptime_assert_statement, STATE 11814),
    (sym_expression_statement, STATE 11814), (sym_tuple_expression, STATE 12425),
    (sym_named_expression, STATE 7969), (sym__named_expression_lhs, STATE 12752),
    (sym_return_statement, STATE 11814), (sym_delete_statement, STATE 11814),
    (sym_raise_statement, STATE 11814), (sym_pass_statement, STATE 11814),
    (sym_break_statement, STATE 11814), (sym_continue_statement, STATE 11814),
    (sym_extension_definition, STATE 925), (sym_mlir_region, STATE 925),
    (sym_comptime_statement, STATE 925), (sym_if_statement, STATE 925),
    (sym_match_statement, STATE 925), (sym_for_statement, STATE 925),
    (sym_while_statement, STATE 925), (sym_try_statement, STATE 925),
    (sym_with_statement, STATE 925), (sym_function_definition, STATE 925),
    (sym_global_statement, STATE 11814), (sym_nonlocal_statement, STATE 11814),
    (sym_exec_statement, STATE 11814), (sym_type_alias_statement, STATE 11814),
    (sym_parameterized_alias_statement, STATE 11814), (sym_class_definition, STATE 925),
    (sym_trait_definition, STATE 925), (sym_decorated_definition, STATE 925),
    (sym_decorator, STATE 3670), (sym_block, STATE 6008), (sym_pattern, STATE 8086),
    (sym_tuple_pattern, STATE 8101), (sym_list_pattern, STATE 8101),
    (sym_list_splat_pattern, STATE 6819), (sym_as_pattern, STATE 7969),
    (sym_expression, STATE 9883), (sym_primary_expression, STATE 7326),
    (sym_comptime_expression, STATE 7017), (sym_transfer_expression, STATE 7017),
    (sym_not_operator, STATE 7969), (sym_boolean_operator, STATE 7969),
    (sym_binary_operator, STATE 7017), (sym_unary_operator, STATE 7017),
    (sym_comparison_operator, STATE 7969), (sym_lambda, STATE 7969),
    (sym_assignment, STATE 12425), (sym_augmented_assignment, STATE 12425),
    (sym_pattern_list, STATE 8578), (sym_yield, STATE 12425), (sym_attribute, STATE 6836),
    (sym_subscript, STATE 6838), (sym_call, STATE 6845), (sym_mlir_type, STATE 7017),
    (sym_list, STATE 7017), (sym_set, STATE 7017), (sym_tuple, STATE 7017),
    (sym_dictionary, STATE 7017), (sym_struct_literal, STATE 7017),
    (sym_list_comprehension, STATE 7017), (sym_dictionary_comprehension, STATE 7017),
    (sym_set_comprehension, STATE 7017), (sym_generator_expression, STATE 7017),
    (sym_parenthesized_expression, STATE 7017), (sym_conditional_expression, STATE 7969),
    (sym_concatenated_string, STATE 7017), (sym_string, STATE 6751), (sym_await, STATE 7017),
    (aux_sym_module_repeat1, STATE 925), (aux_sym_decorated_definition_repeat1, STATE 3670),
    (sym_identifier, ACTIONS 9), (anon_sym_import, ACTIONS 11), (anon_sym_from, ACTIONS 13),
    (anon_sym_LPAREN, ACTIONS 15), (anon_sym_STAR, ACTIONS 17), (anon_sym_print, ACTIONS 19),
    (anon_sym_comptime, ACTIONS 99), (anon_sym_assert, ACTIONS 23),
    (anon_sym___comptime_assert, ACTIONS 25), (anon_sym_return, ACTIONS 27),
    (anon_sym_del, ACTIONS 29), (anon_sym_raise, ACTIONS 31), (anon_sym_pass, ACTIONS 33),
    (anon_sym_break, ACTIONS 35), (anon_sym_continue, ACTIONS 37),
    (anon_sym___extension, ACTIONS 101), (anon_sym___mlir_region, ACTIONS 103),
    (anon_sym_if, ACTIONS 105), (anon_sym_match, ACTIONS 107), (anon_sym_async, ACTIONS 109),
    (anon_sym_for, ACTIONS 111), (anon_sym_while, ACTIONS 113), (anon_sym_try, ACTIONS 115),
    (anon_sym_with, ACTIONS 117), (anon_sym_def, ACTIONS 119), (anon_sym_fn, ACTIONS 119),
    (anon_sym_LBRACK, ACTIONS 59), (anon_sym_LBRACE, ACTIONS 61), (anon_sym_global, ACTIONS 63),
    (anon_sym_nonlocal, ACTIONS 65), (anon_sym_exec, ACTIONS 67), (anon_sym_type, ACTIONS 69),
    (anon_sym_class, ACTIONS 121), (anon_sym_struct, ACTIONS 121), (anon_sym_mut, ACTIONS 73),
    (anon_sym_out, ACTIONS 73), (anon_sym_trait, ACTIONS 123), (anon_sym_AT, ACTIONS 77),
    (anon_sym_DASH, ACTIONS 79), (anon_sym_PLUS, ACTIONS 79), (anon_sym_ref, ACTIONS 81),
    (anon_sym_var, ACTIONS 81), (anon_sym_not, ACTIONS 83), (anon_sym_TILDE, ACTIONS 79),
    (anon_sym_lambda, ACTIONS 85), (anon_sym_yield, ACTIONS 87), (sym_ellipsis, ACTIONS 89),
    (anon_sym___mlir_type, ACTIONS 91), (sym_integer, ACTIONS 93), (sym_float, ACTIONS 89),
    (anon_sym_await, ACTIONS 95), (sym_true, ACTIONS 93), (sym_false, ACTIONS 93),
    (sym_none, ACTIONS 93), (sym_comment, ACTIONS 3), (sym_line_continuation, ACTIONS 3),
    (sym__dedent, ACTIONS 129), (sym_string_start, ACTIONS 97)]"

definition parse_table_327 :: "(nat \<times> nat) list" where "parse_table_327 = [
    (sym__statement, STATE 925), (sym__simple_statements, STATE 925),
    (sym_import_statement, STATE 11814), (sym_future_import_statement, STATE 11814),
    (sym_import_from_statement, STATE 11814), (sym_print_statement, STATE 11814),
    (sym_assert_statement, STATE 11814), (sym_comptime_assert_statement, STATE 11814),
    (sym_expression_statement, STATE 11814), (sym_tuple_expression, STATE 12425),
    (sym_named_expression, STATE 7969), (sym__named_expression_lhs, STATE 12752),
    (sym_return_statement, STATE 11814), (sym_delete_statement, STATE 11814),
    (sym_raise_statement, STATE 11814), (sym_pass_statement, STATE 11814),
    (sym_break_statement, STATE 11814), (sym_continue_statement, STATE 11814),
    (sym_extension_definition, STATE 925), (sym_mlir_region, STATE 925),
    (sym_comptime_statement, STATE 925), (sym_if_statement, STATE 925),
    (sym_match_statement, STATE 925), (sym_for_statement, STATE 925),
    (sym_while_statement, STATE 925), (sym_try_statement, STATE 925),
    (sym_with_statement, STATE 925), (sym_function_definition, STATE 925),
    (sym_global_statement, STATE 11814), (sym_nonlocal_statement, STATE 11814),
    (sym_exec_statement, STATE 11814), (sym_type_alias_statement, STATE 11814),
    (sym_parameterized_alias_statement, STATE 11814), (sym_class_definition, STATE 925),
    (sym_trait_definition, STATE 925), (sym_decorated_definition, STATE 925),
    (sym_decorator, STATE 3670), (sym_block, STATE 6012), (sym_pattern, STATE 8086),
    (sym_tuple_pattern, STATE 8101), (sym_list_pattern, STATE 8101),
    (sym_list_splat_pattern, STATE 6819), (sym_as_pattern, STATE 7969),
    (sym_expression, STATE 9883), (sym_primary_expression, STATE 7326),
    (sym_comptime_expression, STATE 7017), (sym_transfer_expression, STATE 7017),
    (sym_not_operator, STATE 7969), (sym_boolean_operator, STATE 7969),
    (sym_binary_operator, STATE 7017), (sym_unary_operator, STATE 7017),
    (sym_comparison_operator, STATE 7969), (sym_lambda, STATE 7969),
    (sym_assignment, STATE 12425), (sym_augmented_assignment, STATE 12425),
    (sym_pattern_list, STATE 8578), (sym_yield, STATE 12425), (sym_attribute, STATE 6836),
    (sym_subscript, STATE 6838), (sym_call, STATE 6845), (sym_mlir_type, STATE 7017),
    (sym_list, STATE 7017), (sym_set, STATE 7017), (sym_tuple, STATE 7017),
    (sym_dictionary, STATE 7017), (sym_struct_literal, STATE 7017),
    (sym_list_comprehension, STATE 7017), (sym_dictionary_comprehension, STATE 7017),
    (sym_set_comprehension, STATE 7017), (sym_generator_expression, STATE 7017),
    (sym_parenthesized_expression, STATE 7017), (sym_conditional_expression, STATE 7969),
    (sym_concatenated_string, STATE 7017), (sym_string, STATE 6751), (sym_await, STATE 7017),
    (aux_sym_module_repeat1, STATE 925), (aux_sym_decorated_definition_repeat1, STATE 3670),
    (sym_identifier, ACTIONS 9), (anon_sym_import, ACTIONS 11), (anon_sym_from, ACTIONS 13),
    (anon_sym_LPAREN, ACTIONS 15), (anon_sym_STAR, ACTIONS 17), (anon_sym_print, ACTIONS 19),
    (anon_sym_comptime, ACTIONS 99), (anon_sym_assert, ACTIONS 23),
    (anon_sym___comptime_assert, ACTIONS 25), (anon_sym_return, ACTIONS 27),
    (anon_sym_del, ACTIONS 29), (anon_sym_raise, ACTIONS 31), (anon_sym_pass, ACTIONS 33),
    (anon_sym_break, ACTIONS 35), (anon_sym_continue, ACTIONS 37),
    (anon_sym___extension, ACTIONS 101), (anon_sym___mlir_region, ACTIONS 103),
    (anon_sym_if, ACTIONS 105), (anon_sym_match, ACTIONS 107), (anon_sym_async, ACTIONS 109),
    (anon_sym_for, ACTIONS 111), (anon_sym_while, ACTIONS 113), (anon_sym_try, ACTIONS 115),
    (anon_sym_with, ACTIONS 117), (anon_sym_def, ACTIONS 119), (anon_sym_fn, ACTIONS 119),
    (anon_sym_LBRACK, ACTIONS 59), (anon_sym_LBRACE, ACTIONS 61), (anon_sym_global, ACTIONS 63),
    (anon_sym_nonlocal, ACTIONS 65), (anon_sym_exec, ACTIONS 67), (anon_sym_type, ACTIONS 69),
    (anon_sym_class, ACTIONS 121), (anon_sym_struct, ACTIONS 121), (anon_sym_mut, ACTIONS 73),
    (anon_sym_out, ACTIONS 73), (anon_sym_trait, ACTIONS 123), (anon_sym_AT, ACTIONS 77),
    (anon_sym_DASH, ACTIONS 79), (anon_sym_PLUS, ACTIONS 79), (anon_sym_ref, ACTIONS 81),
    (anon_sym_var, ACTIONS 81), (anon_sym_not, ACTIONS 83), (anon_sym_TILDE, ACTIONS 79),
    (anon_sym_lambda, ACTIONS 85), (anon_sym_yield, ACTIONS 87), (sym_ellipsis, ACTIONS 89),
    (anon_sym___mlir_type, ACTIONS 91), (sym_integer, ACTIONS 93), (sym_float, ACTIONS 89),
    (anon_sym_await, ACTIONS 95), (sym_true, ACTIONS 93), (sym_false, ACTIONS 93),
    (sym_none, ACTIONS 93), (sym_comment, ACTIONS 3), (sym_line_continuation, ACTIONS 3),
    (sym__dedent, ACTIONS 129), (sym_string_start, ACTIONS 97)]"

definition parse_table_328 :: "(nat \<times> nat) list" where "parse_table_328 = [
    (sym__statement, STATE 925), (sym__simple_statements, STATE 925),
    (sym_import_statement, STATE 11814), (sym_future_import_statement, STATE 11814),
    (sym_import_from_statement, STATE 11814), (sym_print_statement, STATE 11814),
    (sym_assert_statement, STATE 11814), (sym_comptime_assert_statement, STATE 11814),
    (sym_expression_statement, STATE 11814), (sym_tuple_expression, STATE 12425),
    (sym_named_expression, STATE 7969), (sym__named_expression_lhs, STATE 12752),
    (sym_return_statement, STATE 11814), (sym_delete_statement, STATE 11814),
    (sym_raise_statement, STATE 11814), (sym_pass_statement, STATE 11814),
    (sym_break_statement, STATE 11814), (sym_continue_statement, STATE 11814),
    (sym_extension_definition, STATE 925), (sym_mlir_region, STATE 925),
    (sym_comptime_statement, STATE 925), (sym_if_statement, STATE 925),
    (sym_match_statement, STATE 925), (sym_for_statement, STATE 925),
    (sym_while_statement, STATE 925), (sym_try_statement, STATE 925),
    (sym_with_statement, STATE 925), (sym_function_definition, STATE 925),
    (sym_global_statement, STATE 11814), (sym_nonlocal_statement, STATE 11814),
    (sym_exec_statement, STATE 11814), (sym_type_alias_statement, STATE 11814),
    (sym_parameterized_alias_statement, STATE 11814), (sym_class_definition, STATE 925),
    (sym_trait_definition, STATE 925), (sym_decorated_definition, STATE 925),
    (sym_decorator, STATE 3670), (sym_block, STATE 6015), (sym_pattern, STATE 8086),
    (sym_tuple_pattern, STATE 8101), (sym_list_pattern, STATE 8101),
    (sym_list_splat_pattern, STATE 6819), (sym_as_pattern, STATE 7969),
    (sym_expression, STATE 9883), (sym_primary_expression, STATE 7326),
    (sym_comptime_expression, STATE 7017), (sym_transfer_expression, STATE 7017),
    (sym_not_operator, STATE 7969), (sym_boolean_operator, STATE 7969),
    (sym_binary_operator, STATE 7017), (sym_unary_operator, STATE 7017),
    (sym_comparison_operator, STATE 7969), (sym_lambda, STATE 7969),
    (sym_assignment, STATE 12425), (sym_augmented_assignment, STATE 12425),
    (sym_pattern_list, STATE 8578), (sym_yield, STATE 12425), (sym_attribute, STATE 6836),
    (sym_subscript, STATE 6838), (sym_call, STATE 6845), (sym_mlir_type, STATE 7017),
    (sym_list, STATE 7017), (sym_set, STATE 7017), (sym_tuple, STATE 7017),
    (sym_dictionary, STATE 7017), (sym_struct_literal, STATE 7017),
    (sym_list_comprehension, STATE 7017), (sym_dictionary_comprehension, STATE 7017),
    (sym_set_comprehension, STATE 7017), (sym_generator_expression, STATE 7017),
    (sym_parenthesized_expression, STATE 7017), (sym_conditional_expression, STATE 7969),
    (sym_concatenated_string, STATE 7017), (sym_string, STATE 6751), (sym_await, STATE 7017),
    (aux_sym_module_repeat1, STATE 925), (aux_sym_decorated_definition_repeat1, STATE 3670),
    (sym_identifier, ACTIONS 9), (anon_sym_import, ACTIONS 11), (anon_sym_from, ACTIONS 13),
    (anon_sym_LPAREN, ACTIONS 15), (anon_sym_STAR, ACTIONS 17), (anon_sym_print, ACTIONS 19),
    (anon_sym_comptime, ACTIONS 99), (anon_sym_assert, ACTIONS 23),
    (anon_sym___comptime_assert, ACTIONS 25), (anon_sym_return, ACTIONS 27),
    (anon_sym_del, ACTIONS 29), (anon_sym_raise, ACTIONS 31), (anon_sym_pass, ACTIONS 33),
    (anon_sym_break, ACTIONS 35), (anon_sym_continue, ACTIONS 37),
    (anon_sym___extension, ACTIONS 101), (anon_sym___mlir_region, ACTIONS 103),
    (anon_sym_if, ACTIONS 105), (anon_sym_match, ACTIONS 107), (anon_sym_async, ACTIONS 109),
    (anon_sym_for, ACTIONS 111), (anon_sym_while, ACTIONS 113), (anon_sym_try, ACTIONS 115),
    (anon_sym_with, ACTIONS 117), (anon_sym_def, ACTIONS 119), (anon_sym_fn, ACTIONS 119),
    (anon_sym_LBRACK, ACTIONS 59), (anon_sym_LBRACE, ACTIONS 61), (anon_sym_global, ACTIONS 63),
    (anon_sym_nonlocal, ACTIONS 65), (anon_sym_exec, ACTIONS 67), (anon_sym_type, ACTIONS 69),
    (anon_sym_class, ACTIONS 121), (anon_sym_struct, ACTIONS 121), (anon_sym_mut, ACTIONS 73),
    (anon_sym_out, ACTIONS 73), (anon_sym_trait, ACTIONS 123), (anon_sym_AT, ACTIONS 77),
    (anon_sym_DASH, ACTIONS 79), (anon_sym_PLUS, ACTIONS 79), (anon_sym_ref, ACTIONS 81),
    (anon_sym_var, ACTIONS 81), (anon_sym_not, ACTIONS 83), (anon_sym_TILDE, ACTIONS 79),
    (anon_sym_lambda, ACTIONS 85), (anon_sym_yield, ACTIONS 87), (sym_ellipsis, ACTIONS 89),
    (anon_sym___mlir_type, ACTIONS 91), (sym_integer, ACTIONS 93), (sym_float, ACTIONS 89),
    (anon_sym_await, ACTIONS 95), (sym_true, ACTIONS 93), (sym_false, ACTIONS 93),
    (sym_none, ACTIONS 93), (sym_comment, ACTIONS 3), (sym_line_continuation, ACTIONS 3),
    (sym__dedent, ACTIONS 129), (sym_string_start, ACTIONS 97)]"

definition parse_table_329 :: "(nat \<times> nat) list" where "parse_table_329 = [
    (sym__statement, STATE 925), (sym__simple_statements, STATE 925),
    (sym_import_statement, STATE 11814), (sym_future_import_statement, STATE 11814),
    (sym_import_from_statement, STATE 11814), (sym_print_statement, STATE 11814),
    (sym_assert_statement, STATE 11814), (sym_comptime_assert_statement, STATE 11814),
    (sym_expression_statement, STATE 11814), (sym_tuple_expression, STATE 12425),
    (sym_named_expression, STATE 7969), (sym__named_expression_lhs, STATE 12752),
    (sym_return_statement, STATE 11814), (sym_delete_statement, STATE 11814),
    (sym_raise_statement, STATE 11814), (sym_pass_statement, STATE 11814),
    (sym_break_statement, STATE 11814), (sym_continue_statement, STATE 11814),
    (sym_extension_definition, STATE 925), (sym_mlir_region, STATE 925),
    (sym_comptime_statement, STATE 925), (sym_if_statement, STATE 925),
    (sym_match_statement, STATE 925), (sym_for_statement, STATE 925),
    (sym_while_statement, STATE 925), (sym_try_statement, STATE 925),
    (sym_with_statement, STATE 925), (sym_function_definition, STATE 925),
    (sym_global_statement, STATE 11814), (sym_nonlocal_statement, STATE 11814),
    (sym_exec_statement, STATE 11814), (sym_type_alias_statement, STATE 11814),
    (sym_parameterized_alias_statement, STATE 11814), (sym_class_definition, STATE 925),
    (sym_trait_definition, STATE 925), (sym_decorated_definition, STATE 925),
    (sym_decorator, STATE 3670), (sym_block, STATE 6017), (sym_pattern, STATE 8086),
    (sym_tuple_pattern, STATE 8101), (sym_list_pattern, STATE 8101),
    (sym_list_splat_pattern, STATE 6819), (sym_as_pattern, STATE 7969),
    (sym_expression, STATE 9883), (sym_primary_expression, STATE 7326),
    (sym_comptime_expression, STATE 7017), (sym_transfer_expression, STATE 7017),
    (sym_not_operator, STATE 7969), (sym_boolean_operator, STATE 7969),
    (sym_binary_operator, STATE 7017), (sym_unary_operator, STATE 7017),
    (sym_comparison_operator, STATE 7969), (sym_lambda, STATE 7969),
    (sym_assignment, STATE 12425), (sym_augmented_assignment, STATE 12425),
    (sym_pattern_list, STATE 8578), (sym_yield, STATE 12425), (sym_attribute, STATE 6836),
    (sym_subscript, STATE 6838), (sym_call, STATE 6845), (sym_mlir_type, STATE 7017),
    (sym_list, STATE 7017), (sym_set, STATE 7017), (sym_tuple, STATE 7017),
    (sym_dictionary, STATE 7017), (sym_struct_literal, STATE 7017),
    (sym_list_comprehension, STATE 7017), (sym_dictionary_comprehension, STATE 7017),
    (sym_set_comprehension, STATE 7017), (sym_generator_expression, STATE 7017),
    (sym_parenthesized_expression, STATE 7017), (sym_conditional_expression, STATE 7969),
    (sym_concatenated_string, STATE 7017), (sym_string, STATE 6751), (sym_await, STATE 7017),
    (aux_sym_module_repeat1, STATE 925), (aux_sym_decorated_definition_repeat1, STATE 3670),
    (sym_identifier, ACTIONS 9), (anon_sym_import, ACTIONS 11), (anon_sym_from, ACTIONS 13),
    (anon_sym_LPAREN, ACTIONS 15), (anon_sym_STAR, ACTIONS 17), (anon_sym_print, ACTIONS 19),
    (anon_sym_comptime, ACTIONS 99), (anon_sym_assert, ACTIONS 23),
    (anon_sym___comptime_assert, ACTIONS 25), (anon_sym_return, ACTIONS 27),
    (anon_sym_del, ACTIONS 29), (anon_sym_raise, ACTIONS 31), (anon_sym_pass, ACTIONS 33),
    (anon_sym_break, ACTIONS 35), (anon_sym_continue, ACTIONS 37),
    (anon_sym___extension, ACTIONS 101), (anon_sym___mlir_region, ACTIONS 103),
    (anon_sym_if, ACTIONS 105), (anon_sym_match, ACTIONS 107), (anon_sym_async, ACTIONS 109),
    (anon_sym_for, ACTIONS 111), (anon_sym_while, ACTIONS 113), (anon_sym_try, ACTIONS 115),
    (anon_sym_with, ACTIONS 117), (anon_sym_def, ACTIONS 119), (anon_sym_fn, ACTIONS 119),
    (anon_sym_LBRACK, ACTIONS 59), (anon_sym_LBRACE, ACTIONS 61), (anon_sym_global, ACTIONS 63),
    (anon_sym_nonlocal, ACTIONS 65), (anon_sym_exec, ACTIONS 67), (anon_sym_type, ACTIONS 69),
    (anon_sym_class, ACTIONS 121), (anon_sym_struct, ACTIONS 121), (anon_sym_mut, ACTIONS 73),
    (anon_sym_out, ACTIONS 73), (anon_sym_trait, ACTIONS 123), (anon_sym_AT, ACTIONS 77),
    (anon_sym_DASH, ACTIONS 79), (anon_sym_PLUS, ACTIONS 79), (anon_sym_ref, ACTIONS 81),
    (anon_sym_var, ACTIONS 81), (anon_sym_not, ACTIONS 83), (anon_sym_TILDE, ACTIONS 79),
    (anon_sym_lambda, ACTIONS 85), (anon_sym_yield, ACTIONS 87), (sym_ellipsis, ACTIONS 89),
    (anon_sym___mlir_type, ACTIONS 91), (sym_integer, ACTIONS 93), (sym_float, ACTIONS 89),
    (anon_sym_await, ACTIONS 95), (sym_true, ACTIONS 93), (sym_false, ACTIONS 93),
    (sym_none, ACTIONS 93), (sym_comment, ACTIONS 3), (sym_line_continuation, ACTIONS 3),
    (sym__dedent, ACTIONS 129), (sym_string_start, ACTIONS 97)]"

definition parse_table_330 :: "(nat \<times> nat) list" where "parse_table_330 = [
    (sym__statement, STATE 925), (sym__simple_statements, STATE 925),
    (sym_import_statement, STATE 11814), (sym_future_import_statement, STATE 11814),
    (sym_import_from_statement, STATE 11814), (sym_print_statement, STATE 11814),
    (sym_assert_statement, STATE 11814), (sym_comptime_assert_statement, STATE 11814),
    (sym_expression_statement, STATE 11814), (sym_tuple_expression, STATE 12425),
    (sym_named_expression, STATE 7969), (sym__named_expression_lhs, STATE 12752),
    (sym_return_statement, STATE 11814), (sym_delete_statement, STATE 11814),
    (sym_raise_statement, STATE 11814), (sym_pass_statement, STATE 11814),
    (sym_break_statement, STATE 11814), (sym_continue_statement, STATE 11814),
    (sym_extension_definition, STATE 925), (sym_mlir_region, STATE 925),
    (sym_comptime_statement, STATE 925), (sym_if_statement, STATE 925),
    (sym_match_statement, STATE 925), (sym_for_statement, STATE 925),
    (sym_while_statement, STATE 925), (sym_try_statement, STATE 925),
    (sym_with_statement, STATE 925), (sym_function_definition, STATE 925),
    (sym_global_statement, STATE 11814), (sym_nonlocal_statement, STATE 11814),
    (sym_exec_statement, STATE 11814), (sym_type_alias_statement, STATE 11814),
    (sym_parameterized_alias_statement, STATE 11814), (sym_class_definition, STATE 925),
    (sym_trait_definition, STATE 925), (sym_decorated_definition, STATE 925),
    (sym_decorator, STATE 3670), (sym_block, STATE 6031), (sym_pattern, STATE 8086),
    (sym_tuple_pattern, STATE 8101), (sym_list_pattern, STATE 8101),
    (sym_list_splat_pattern, STATE 6819), (sym_as_pattern, STATE 7969),
    (sym_expression, STATE 9883), (sym_primary_expression, STATE 7326),
    (sym_comptime_expression, STATE 7017), (sym_transfer_expression, STATE 7017),
    (sym_not_operator, STATE 7969), (sym_boolean_operator, STATE 7969),
    (sym_binary_operator, STATE 7017), (sym_unary_operator, STATE 7017),
    (sym_comparison_operator, STATE 7969), (sym_lambda, STATE 7969),
    (sym_assignment, STATE 12425), (sym_augmented_assignment, STATE 12425),
    (sym_pattern_list, STATE 8578), (sym_yield, STATE 12425), (sym_attribute, STATE 6836),
    (sym_subscript, STATE 6838), (sym_call, STATE 6845), (sym_mlir_type, STATE 7017),
    (sym_list, STATE 7017), (sym_set, STATE 7017), (sym_tuple, STATE 7017),
    (sym_dictionary, STATE 7017), (sym_struct_literal, STATE 7017),
    (sym_list_comprehension, STATE 7017), (sym_dictionary_comprehension, STATE 7017),
    (sym_set_comprehension, STATE 7017), (sym_generator_expression, STATE 7017),
    (sym_parenthesized_expression, STATE 7017), (sym_conditional_expression, STATE 7969),
    (sym_concatenated_string, STATE 7017), (sym_string, STATE 6751), (sym_await, STATE 7017),
    (aux_sym_module_repeat1, STATE 925), (aux_sym_decorated_definition_repeat1, STATE 3670),
    (sym_identifier, ACTIONS 9), (anon_sym_import, ACTIONS 11), (anon_sym_from, ACTIONS 13),
    (anon_sym_LPAREN, ACTIONS 15), (anon_sym_STAR, ACTIONS 17), (anon_sym_print, ACTIONS 19),
    (anon_sym_comptime, ACTIONS 99), (anon_sym_assert, ACTIONS 23),
    (anon_sym___comptime_assert, ACTIONS 25), (anon_sym_return, ACTIONS 27),
    (anon_sym_del, ACTIONS 29), (anon_sym_raise, ACTIONS 31), (anon_sym_pass, ACTIONS 33),
    (anon_sym_break, ACTIONS 35), (anon_sym_continue, ACTIONS 37),
    (anon_sym___extension, ACTIONS 101), (anon_sym___mlir_region, ACTIONS 103),
    (anon_sym_if, ACTIONS 105), (anon_sym_match, ACTIONS 107), (anon_sym_async, ACTIONS 109),
    (anon_sym_for, ACTIONS 111), (anon_sym_while, ACTIONS 113), (anon_sym_try, ACTIONS 115),
    (anon_sym_with, ACTIONS 117), (anon_sym_def, ACTIONS 119), (anon_sym_fn, ACTIONS 119),
    (anon_sym_LBRACK, ACTIONS 59), (anon_sym_LBRACE, ACTIONS 61), (anon_sym_global, ACTIONS 63),
    (anon_sym_nonlocal, ACTIONS 65), (anon_sym_exec, ACTIONS 67), (anon_sym_type, ACTIONS 69),
    (anon_sym_class, ACTIONS 121), (anon_sym_struct, ACTIONS 121), (anon_sym_mut, ACTIONS 73),
    (anon_sym_out, ACTIONS 73), (anon_sym_trait, ACTIONS 123), (anon_sym_AT, ACTIONS 77),
    (anon_sym_DASH, ACTIONS 79), (anon_sym_PLUS, ACTIONS 79), (anon_sym_ref, ACTIONS 81),
    (anon_sym_var, ACTIONS 81), (anon_sym_not, ACTIONS 83), (anon_sym_TILDE, ACTIONS 79),
    (anon_sym_lambda, ACTIONS 85), (anon_sym_yield, ACTIONS 87), (sym_ellipsis, ACTIONS 89),
    (anon_sym___mlir_type, ACTIONS 91), (sym_integer, ACTIONS 93), (sym_float, ACTIONS 89),
    (anon_sym_await, ACTIONS 95), (sym_true, ACTIONS 93), (sym_false, ACTIONS 93),
    (sym_none, ACTIONS 93), (sym_comment, ACTIONS 3), (sym_line_continuation, ACTIONS 3),
    (sym__dedent, ACTIONS 129), (sym_string_start, ACTIONS 97)]"

definition parse_table_331 :: "(nat \<times> nat) list" where "parse_table_331 = [
    (sym__statement, STATE 925), (sym__simple_statements, STATE 925),
    (sym_import_statement, STATE 11814), (sym_future_import_statement, STATE 11814),
    (sym_import_from_statement, STATE 11814), (sym_print_statement, STATE 11814),
    (sym_assert_statement, STATE 11814), (sym_comptime_assert_statement, STATE 11814),
    (sym_expression_statement, STATE 11814), (sym_tuple_expression, STATE 12425),
    (sym_named_expression, STATE 7969), (sym__named_expression_lhs, STATE 12752),
    (sym_return_statement, STATE 11814), (sym_delete_statement, STATE 11814),
    (sym_raise_statement, STATE 11814), (sym_pass_statement, STATE 11814),
    (sym_break_statement, STATE 11814), (sym_continue_statement, STATE 11814),
    (sym_extension_definition, STATE 925), (sym_mlir_region, STATE 925),
    (sym_comptime_statement, STATE 925), (sym_if_statement, STATE 925),
    (sym_match_statement, STATE 925), (sym_for_statement, STATE 925),
    (sym_while_statement, STATE 925), (sym_try_statement, STATE 925),
    (sym_with_statement, STATE 925), (sym_function_definition, STATE 925),
    (sym_global_statement, STATE 11814), (sym_nonlocal_statement, STATE 11814),
    (sym_exec_statement, STATE 11814), (sym_type_alias_statement, STATE 11814),
    (sym_parameterized_alias_statement, STATE 11814), (sym_class_definition, STATE 925),
    (sym_trait_definition, STATE 925), (sym_decorated_definition, STATE 925),
    (sym_decorator, STATE 3670), (sym_block, STATE 6033), (sym_pattern, STATE 8086),
    (sym_tuple_pattern, STATE 8101), (sym_list_pattern, STATE 8101),
    (sym_list_splat_pattern, STATE 6819), (sym_as_pattern, STATE 7969),
    (sym_expression, STATE 9883), (sym_primary_expression, STATE 7326),
    (sym_comptime_expression, STATE 7017), (sym_transfer_expression, STATE 7017),
    (sym_not_operator, STATE 7969), (sym_boolean_operator, STATE 7969),
    (sym_binary_operator, STATE 7017), (sym_unary_operator, STATE 7017),
    (sym_comparison_operator, STATE 7969), (sym_lambda, STATE 7969),
    (sym_assignment, STATE 12425), (sym_augmented_assignment, STATE 12425),
    (sym_pattern_list, STATE 8578), (sym_yield, STATE 12425), (sym_attribute, STATE 6836),
    (sym_subscript, STATE 6838), (sym_call, STATE 6845), (sym_mlir_type, STATE 7017),
    (sym_list, STATE 7017), (sym_set, STATE 7017), (sym_tuple, STATE 7017),
    (sym_dictionary, STATE 7017), (sym_struct_literal, STATE 7017),
    (sym_list_comprehension, STATE 7017), (sym_dictionary_comprehension, STATE 7017),
    (sym_set_comprehension, STATE 7017), (sym_generator_expression, STATE 7017),
    (sym_parenthesized_expression, STATE 7017), (sym_conditional_expression, STATE 7969),
    (sym_concatenated_string, STATE 7017), (sym_string, STATE 6751), (sym_await, STATE 7017),
    (aux_sym_module_repeat1, STATE 925), (aux_sym_decorated_definition_repeat1, STATE 3670),
    (sym_identifier, ACTIONS 9), (anon_sym_import, ACTIONS 11), (anon_sym_from, ACTIONS 13),
    (anon_sym_LPAREN, ACTIONS 15), (anon_sym_STAR, ACTIONS 17), (anon_sym_print, ACTIONS 19),
    (anon_sym_comptime, ACTIONS 99), (anon_sym_assert, ACTIONS 23),
    (anon_sym___comptime_assert, ACTIONS 25), (anon_sym_return, ACTIONS 27),
    (anon_sym_del, ACTIONS 29), (anon_sym_raise, ACTIONS 31), (anon_sym_pass, ACTIONS 33),
    (anon_sym_break, ACTIONS 35), (anon_sym_continue, ACTIONS 37),
    (anon_sym___extension, ACTIONS 101), (anon_sym___mlir_region, ACTIONS 103),
    (anon_sym_if, ACTIONS 105), (anon_sym_match, ACTIONS 107), (anon_sym_async, ACTIONS 109),
    (anon_sym_for, ACTIONS 111), (anon_sym_while, ACTIONS 113), (anon_sym_try, ACTIONS 115),
    (anon_sym_with, ACTIONS 117), (anon_sym_def, ACTIONS 119), (anon_sym_fn, ACTIONS 119),
    (anon_sym_LBRACK, ACTIONS 59), (anon_sym_LBRACE, ACTIONS 61), (anon_sym_global, ACTIONS 63),
    (anon_sym_nonlocal, ACTIONS 65), (anon_sym_exec, ACTIONS 67), (anon_sym_type, ACTIONS 69),
    (anon_sym_class, ACTIONS 121), (anon_sym_struct, ACTIONS 121), (anon_sym_mut, ACTIONS 73),
    (anon_sym_out, ACTIONS 73), (anon_sym_trait, ACTIONS 123), (anon_sym_AT, ACTIONS 77),
    (anon_sym_DASH, ACTIONS 79), (anon_sym_PLUS, ACTIONS 79), (anon_sym_ref, ACTIONS 81),
    (anon_sym_var, ACTIONS 81), (anon_sym_not, ACTIONS 83), (anon_sym_TILDE, ACTIONS 79),
    (anon_sym_lambda, ACTIONS 85), (anon_sym_yield, ACTIONS 87), (sym_ellipsis, ACTIONS 89),
    (anon_sym___mlir_type, ACTIONS 91), (sym_integer, ACTIONS 93), (sym_float, ACTIONS 89),
    (anon_sym_await, ACTIONS 95), (sym_true, ACTIONS 93), (sym_false, ACTIONS 93),
    (sym_none, ACTIONS 93), (sym_comment, ACTIONS 3), (sym_line_continuation, ACTIONS 3),
    (sym__dedent, ACTIONS 129), (sym_string_start, ACTIONS 97)]"

definition parse_table_332 :: "(nat \<times> nat) list" where "parse_table_332 = [
    (sym__statement, STATE 925), (sym__simple_statements, STATE 925),
    (sym_import_statement, STATE 11814), (sym_future_import_statement, STATE 11814),
    (sym_import_from_statement, STATE 11814), (sym_print_statement, STATE 11814),
    (sym_assert_statement, STATE 11814), (sym_comptime_assert_statement, STATE 11814),
    (sym_expression_statement, STATE 11814), (sym_tuple_expression, STATE 12425),
    (sym_named_expression, STATE 7969), (sym__named_expression_lhs, STATE 12752),
    (sym_return_statement, STATE 11814), (sym_delete_statement, STATE 11814),
    (sym_raise_statement, STATE 11814), (sym_pass_statement, STATE 11814),
    (sym_break_statement, STATE 11814), (sym_continue_statement, STATE 11814),
    (sym_extension_definition, STATE 925), (sym_mlir_region, STATE 925),
    (sym_comptime_statement, STATE 925), (sym_if_statement, STATE 925),
    (sym_match_statement, STATE 925), (sym_for_statement, STATE 925),
    (sym_while_statement, STATE 925), (sym_try_statement, STATE 925),
    (sym_with_statement, STATE 925), (sym_function_definition, STATE 925),
    (sym_global_statement, STATE 11814), (sym_nonlocal_statement, STATE 11814),
    (sym_exec_statement, STATE 11814), (sym_type_alias_statement, STATE 11814),
    (sym_parameterized_alias_statement, STATE 11814), (sym_class_definition, STATE 925),
    (sym_trait_definition, STATE 925), (sym_decorated_definition, STATE 925),
    (sym_decorator, STATE 3670), (sym_block, STATE 6045), (sym_pattern, STATE 8086),
    (sym_tuple_pattern, STATE 8101), (sym_list_pattern, STATE 8101),
    (sym_list_splat_pattern, STATE 6819), (sym_as_pattern, STATE 7969),
    (sym_expression, STATE 9883), (sym_primary_expression, STATE 7326),
    (sym_comptime_expression, STATE 7017), (sym_transfer_expression, STATE 7017),
    (sym_not_operator, STATE 7969), (sym_boolean_operator, STATE 7969),
    (sym_binary_operator, STATE 7017), (sym_unary_operator, STATE 7017),
    (sym_comparison_operator, STATE 7969), (sym_lambda, STATE 7969),
    (sym_assignment, STATE 12425), (sym_augmented_assignment, STATE 12425),
    (sym_pattern_list, STATE 8578), (sym_yield, STATE 12425), (sym_attribute, STATE 6836),
    (sym_subscript, STATE 6838), (sym_call, STATE 6845), (sym_mlir_type, STATE 7017),
    (sym_list, STATE 7017), (sym_set, STATE 7017), (sym_tuple, STATE 7017),
    (sym_dictionary, STATE 7017), (sym_struct_literal, STATE 7017),
    (sym_list_comprehension, STATE 7017), (sym_dictionary_comprehension, STATE 7017),
    (sym_set_comprehension, STATE 7017), (sym_generator_expression, STATE 7017),
    (sym_parenthesized_expression, STATE 7017), (sym_conditional_expression, STATE 7969),
    (sym_concatenated_string, STATE 7017), (sym_string, STATE 6751), (sym_await, STATE 7017),
    (aux_sym_module_repeat1, STATE 925), (aux_sym_decorated_definition_repeat1, STATE 3670),
    (sym_identifier, ACTIONS 9), (anon_sym_import, ACTIONS 11), (anon_sym_from, ACTIONS 13),
    (anon_sym_LPAREN, ACTIONS 15), (anon_sym_STAR, ACTIONS 17), (anon_sym_print, ACTIONS 19),
    (anon_sym_comptime, ACTIONS 99), (anon_sym_assert, ACTIONS 23),
    (anon_sym___comptime_assert, ACTIONS 25), (anon_sym_return, ACTIONS 27),
    (anon_sym_del, ACTIONS 29), (anon_sym_raise, ACTIONS 31), (anon_sym_pass, ACTIONS 33),
    (anon_sym_break, ACTIONS 35), (anon_sym_continue, ACTIONS 37),
    (anon_sym___extension, ACTIONS 101), (anon_sym___mlir_region, ACTIONS 103),
    (anon_sym_if, ACTIONS 105), (anon_sym_match, ACTIONS 107), (anon_sym_async, ACTIONS 109),
    (anon_sym_for, ACTIONS 111), (anon_sym_while, ACTIONS 113), (anon_sym_try, ACTIONS 115),
    (anon_sym_with, ACTIONS 117), (anon_sym_def, ACTIONS 119), (anon_sym_fn, ACTIONS 119),
    (anon_sym_LBRACK, ACTIONS 59), (anon_sym_LBRACE, ACTIONS 61), (anon_sym_global, ACTIONS 63),
    (anon_sym_nonlocal, ACTIONS 65), (anon_sym_exec, ACTIONS 67), (anon_sym_type, ACTIONS 69),
    (anon_sym_class, ACTIONS 121), (anon_sym_struct, ACTIONS 121), (anon_sym_mut, ACTIONS 73),
    (anon_sym_out, ACTIONS 73), (anon_sym_trait, ACTIONS 123), (anon_sym_AT, ACTIONS 77),
    (anon_sym_DASH, ACTIONS 79), (anon_sym_PLUS, ACTIONS 79), (anon_sym_ref, ACTIONS 81),
    (anon_sym_var, ACTIONS 81), (anon_sym_not, ACTIONS 83), (anon_sym_TILDE, ACTIONS 79),
    (anon_sym_lambda, ACTIONS 85), (anon_sym_yield, ACTIONS 87), (sym_ellipsis, ACTIONS 89),
    (anon_sym___mlir_type, ACTIONS 91), (sym_integer, ACTIONS 93), (sym_float, ACTIONS 89),
    (anon_sym_await, ACTIONS 95), (sym_true, ACTIONS 93), (sym_false, ACTIONS 93),
    (sym_none, ACTIONS 93), (sym_comment, ACTIONS 3), (sym_line_continuation, ACTIONS 3),
    (sym__dedent, ACTIONS 129), (sym_string_start, ACTIONS 97)]"

definition parse_table_333 :: "(nat \<times> nat) list" where "parse_table_333 = [
    (sym__statement, STATE 925), (sym__simple_statements, STATE 925),
    (sym_import_statement, STATE 11814), (sym_future_import_statement, STATE 11814),
    (sym_import_from_statement, STATE 11814), (sym_print_statement, STATE 11814),
    (sym_assert_statement, STATE 11814), (sym_comptime_assert_statement, STATE 11814),
    (sym_expression_statement, STATE 11814), (sym_tuple_expression, STATE 12425),
    (sym_named_expression, STATE 7969), (sym__named_expression_lhs, STATE 12752),
    (sym_return_statement, STATE 11814), (sym_delete_statement, STATE 11814),
    (sym_raise_statement, STATE 11814), (sym_pass_statement, STATE 11814),
    (sym_break_statement, STATE 11814), (sym_continue_statement, STATE 11814),
    (sym_extension_definition, STATE 925), (sym_mlir_region, STATE 925),
    (sym_comptime_statement, STATE 925), (sym_if_statement, STATE 925),
    (sym_match_statement, STATE 925), (sym_for_statement, STATE 925),
    (sym_while_statement, STATE 925), (sym_try_statement, STATE 925),
    (sym_with_statement, STATE 925), (sym_function_definition, STATE 925),
    (sym_global_statement, STATE 11814), (sym_nonlocal_statement, STATE 11814),
    (sym_exec_statement, STATE 11814), (sym_type_alias_statement, STATE 11814),
    (sym_parameterized_alias_statement, STATE 11814), (sym_class_definition, STATE 925),
    (sym_trait_definition, STATE 925), (sym_decorated_definition, STATE 925),
    (sym_decorator, STATE 3670), (sym_block, STATE 6054), (sym_pattern, STATE 8086),
    (sym_tuple_pattern, STATE 8101), (sym_list_pattern, STATE 8101),
    (sym_list_splat_pattern, STATE 6819), (sym_as_pattern, STATE 7969),
    (sym_expression, STATE 9883), (sym_primary_expression, STATE 7326),
    (sym_comptime_expression, STATE 7017), (sym_transfer_expression, STATE 7017),
    (sym_not_operator, STATE 7969), (sym_boolean_operator, STATE 7969),
    (sym_binary_operator, STATE 7017), (sym_unary_operator, STATE 7017),
    (sym_comparison_operator, STATE 7969), (sym_lambda, STATE 7969),
    (sym_assignment, STATE 12425), (sym_augmented_assignment, STATE 12425),
    (sym_pattern_list, STATE 8578), (sym_yield, STATE 12425), (sym_attribute, STATE 6836),
    (sym_subscript, STATE 6838), (sym_call, STATE 6845), (sym_mlir_type, STATE 7017),
    (sym_list, STATE 7017), (sym_set, STATE 7017), (sym_tuple, STATE 7017),
    (sym_dictionary, STATE 7017), (sym_struct_literal, STATE 7017),
    (sym_list_comprehension, STATE 7017), (sym_dictionary_comprehension, STATE 7017),
    (sym_set_comprehension, STATE 7017), (sym_generator_expression, STATE 7017),
    (sym_parenthesized_expression, STATE 7017), (sym_conditional_expression, STATE 7969),
    (sym_concatenated_string, STATE 7017), (sym_string, STATE 6751), (sym_await, STATE 7017),
    (aux_sym_module_repeat1, STATE 925), (aux_sym_decorated_definition_repeat1, STATE 3670),
    (sym_identifier, ACTIONS 9), (anon_sym_import, ACTIONS 11), (anon_sym_from, ACTIONS 13),
    (anon_sym_LPAREN, ACTIONS 15), (anon_sym_STAR, ACTIONS 17), (anon_sym_print, ACTIONS 19),
    (anon_sym_comptime, ACTIONS 99), (anon_sym_assert, ACTIONS 23),
    (anon_sym___comptime_assert, ACTIONS 25), (anon_sym_return, ACTIONS 27),
    (anon_sym_del, ACTIONS 29), (anon_sym_raise, ACTIONS 31), (anon_sym_pass, ACTIONS 33),
    (anon_sym_break, ACTIONS 35), (anon_sym_continue, ACTIONS 37),
    (anon_sym___extension, ACTIONS 101), (anon_sym___mlir_region, ACTIONS 103),
    (anon_sym_if, ACTIONS 105), (anon_sym_match, ACTIONS 107), (anon_sym_async, ACTIONS 109),
    (anon_sym_for, ACTIONS 111), (anon_sym_while, ACTIONS 113), (anon_sym_try, ACTIONS 115),
    (anon_sym_with, ACTIONS 117), (anon_sym_def, ACTIONS 119), (anon_sym_fn, ACTIONS 119),
    (anon_sym_LBRACK, ACTIONS 59), (anon_sym_LBRACE, ACTIONS 61), (anon_sym_global, ACTIONS 63),
    (anon_sym_nonlocal, ACTIONS 65), (anon_sym_exec, ACTIONS 67), (anon_sym_type, ACTIONS 69),
    (anon_sym_class, ACTIONS 121), (anon_sym_struct, ACTIONS 121), (anon_sym_mut, ACTIONS 73),
    (anon_sym_out, ACTIONS 73), (anon_sym_trait, ACTIONS 123), (anon_sym_AT, ACTIONS 77),
    (anon_sym_DASH, ACTIONS 79), (anon_sym_PLUS, ACTIONS 79), (anon_sym_ref, ACTIONS 81),
    (anon_sym_var, ACTIONS 81), (anon_sym_not, ACTIONS 83), (anon_sym_TILDE, ACTIONS 79),
    (anon_sym_lambda, ACTIONS 85), (anon_sym_yield, ACTIONS 87), (sym_ellipsis, ACTIONS 89),
    (anon_sym___mlir_type, ACTIONS 91), (sym_integer, ACTIONS 93), (sym_float, ACTIONS 89),
    (anon_sym_await, ACTIONS 95), (sym_true, ACTIONS 93), (sym_false, ACTIONS 93),
    (sym_none, ACTIONS 93), (sym_comment, ACTIONS 3), (sym_line_continuation, ACTIONS 3),
    (sym__dedent, ACTIONS 129), (sym_string_start, ACTIONS 97)]"

definition parse_table_334 :: "(nat \<times> nat) list" where "parse_table_334 = [
    (sym__statement, STATE 925), (sym__simple_statements, STATE 925),
    (sym_import_statement, STATE 11814), (sym_future_import_statement, STATE 11814),
    (sym_import_from_statement, STATE 11814), (sym_print_statement, STATE 11814),
    (sym_assert_statement, STATE 11814), (sym_comptime_assert_statement, STATE 11814),
    (sym_expression_statement, STATE 11814), (sym_tuple_expression, STATE 12425),
    (sym_named_expression, STATE 7969), (sym__named_expression_lhs, STATE 12752),
    (sym_return_statement, STATE 11814), (sym_delete_statement, STATE 11814),
    (sym_raise_statement, STATE 11814), (sym_pass_statement, STATE 11814),
    (sym_break_statement, STATE 11814), (sym_continue_statement, STATE 11814),
    (sym_extension_definition, STATE 925), (sym_mlir_region, STATE 925),
    (sym_comptime_statement, STATE 925), (sym_if_statement, STATE 925),
    (sym_match_statement, STATE 925), (sym_for_statement, STATE 925),
    (sym_while_statement, STATE 925), (sym_try_statement, STATE 925),
    (sym_with_statement, STATE 925), (sym_function_definition, STATE 925),
    (sym_global_statement, STATE 11814), (sym_nonlocal_statement, STATE 11814),
    (sym_exec_statement, STATE 11814), (sym_type_alias_statement, STATE 11814),
    (sym_parameterized_alias_statement, STATE 11814), (sym_class_definition, STATE 925),
    (sym_trait_definition, STATE 925), (sym_decorated_definition, STATE 925),
    (sym_decorator, STATE 3670), (sym_block, STATE 6061), (sym_pattern, STATE 8086),
    (sym_tuple_pattern, STATE 8101), (sym_list_pattern, STATE 8101),
    (sym_list_splat_pattern, STATE 6819), (sym_as_pattern, STATE 7969),
    (sym_expression, STATE 9883), (sym_primary_expression, STATE 7326),
    (sym_comptime_expression, STATE 7017), (sym_transfer_expression, STATE 7017),
    (sym_not_operator, STATE 7969), (sym_boolean_operator, STATE 7969),
    (sym_binary_operator, STATE 7017), (sym_unary_operator, STATE 7017),
    (sym_comparison_operator, STATE 7969), (sym_lambda, STATE 7969),
    (sym_assignment, STATE 12425), (sym_augmented_assignment, STATE 12425),
    (sym_pattern_list, STATE 8578), (sym_yield, STATE 12425), (sym_attribute, STATE 6836),
    (sym_subscript, STATE 6838), (sym_call, STATE 6845), (sym_mlir_type, STATE 7017),
    (sym_list, STATE 7017), (sym_set, STATE 7017), (sym_tuple, STATE 7017),
    (sym_dictionary, STATE 7017), (sym_struct_literal, STATE 7017),
    (sym_list_comprehension, STATE 7017), (sym_dictionary_comprehension, STATE 7017),
    (sym_set_comprehension, STATE 7017), (sym_generator_expression, STATE 7017),
    (sym_parenthesized_expression, STATE 7017), (sym_conditional_expression, STATE 7969),
    (sym_concatenated_string, STATE 7017), (sym_string, STATE 6751), (sym_await, STATE 7017),
    (aux_sym_module_repeat1, STATE 925), (aux_sym_decorated_definition_repeat1, STATE 3670),
    (sym_identifier, ACTIONS 9), (anon_sym_import, ACTIONS 11), (anon_sym_from, ACTIONS 13),
    (anon_sym_LPAREN, ACTIONS 15), (anon_sym_STAR, ACTIONS 17), (anon_sym_print, ACTIONS 19),
    (anon_sym_comptime, ACTIONS 99), (anon_sym_assert, ACTIONS 23),
    (anon_sym___comptime_assert, ACTIONS 25), (anon_sym_return, ACTIONS 27),
    (anon_sym_del, ACTIONS 29), (anon_sym_raise, ACTIONS 31), (anon_sym_pass, ACTIONS 33),
    (anon_sym_break, ACTIONS 35), (anon_sym_continue, ACTIONS 37),
    (anon_sym___extension, ACTIONS 101), (anon_sym___mlir_region, ACTIONS 103),
    (anon_sym_if, ACTIONS 105), (anon_sym_match, ACTIONS 107), (anon_sym_async, ACTIONS 109),
    (anon_sym_for, ACTIONS 111), (anon_sym_while, ACTIONS 113), (anon_sym_try, ACTIONS 115),
    (anon_sym_with, ACTIONS 117), (anon_sym_def, ACTIONS 119), (anon_sym_fn, ACTIONS 119),
    (anon_sym_LBRACK, ACTIONS 59), (anon_sym_LBRACE, ACTIONS 61), (anon_sym_global, ACTIONS 63),
    (anon_sym_nonlocal, ACTIONS 65), (anon_sym_exec, ACTIONS 67), (anon_sym_type, ACTIONS 69),
    (anon_sym_class, ACTIONS 121), (anon_sym_struct, ACTIONS 121), (anon_sym_mut, ACTIONS 73),
    (anon_sym_out, ACTIONS 73), (anon_sym_trait, ACTIONS 123), (anon_sym_AT, ACTIONS 77),
    (anon_sym_DASH, ACTIONS 79), (anon_sym_PLUS, ACTIONS 79), (anon_sym_ref, ACTIONS 81),
    (anon_sym_var, ACTIONS 81), (anon_sym_not, ACTIONS 83), (anon_sym_TILDE, ACTIONS 79),
    (anon_sym_lambda, ACTIONS 85), (anon_sym_yield, ACTIONS 87), (sym_ellipsis, ACTIONS 89),
    (anon_sym___mlir_type, ACTIONS 91), (sym_integer, ACTIONS 93), (sym_float, ACTIONS 89),
    (anon_sym_await, ACTIONS 95), (sym_true, ACTIONS 93), (sym_false, ACTIONS 93),
    (sym_none, ACTIONS 93), (sym_comment, ACTIONS 3), (sym_line_continuation, ACTIONS 3),
    (sym__dedent, ACTIONS 129), (sym_string_start, ACTIONS 97)]"

definition parse_table_335 :: "(nat \<times> nat) list" where "parse_table_335 = [
    (sym__statement, STATE 925), (sym__simple_statements, STATE 925),
    (sym_import_statement, STATE 11814), (sym_future_import_statement, STATE 11814),
    (sym_import_from_statement, STATE 11814), (sym_print_statement, STATE 11814),
    (sym_assert_statement, STATE 11814), (sym_comptime_assert_statement, STATE 11814),
    (sym_expression_statement, STATE 11814), (sym_tuple_expression, STATE 12425),
    (sym_named_expression, STATE 7969), (sym__named_expression_lhs, STATE 12752),
    (sym_return_statement, STATE 11814), (sym_delete_statement, STATE 11814),
    (sym_raise_statement, STATE 11814), (sym_pass_statement, STATE 11814),
    (sym_break_statement, STATE 11814), (sym_continue_statement, STATE 11814),
    (sym_extension_definition, STATE 925), (sym_mlir_region, STATE 925),
    (sym_comptime_statement, STATE 925), (sym_if_statement, STATE 925),
    (sym_match_statement, STATE 925), (sym_for_statement, STATE 925),
    (sym_while_statement, STATE 925), (sym_try_statement, STATE 925),
    (sym_with_statement, STATE 925), (sym_function_definition, STATE 925),
    (sym_global_statement, STATE 11814), (sym_nonlocal_statement, STATE 11814),
    (sym_exec_statement, STATE 11814), (sym_type_alias_statement, STATE 11814),
    (sym_parameterized_alias_statement, STATE 11814), (sym_class_definition, STATE 925),
    (sym_trait_definition, STATE 925), (sym_decorated_definition, STATE 925),
    (sym_decorator, STATE 3670), (sym_block, STATE 6066), (sym_pattern, STATE 8086),
    (sym_tuple_pattern, STATE 8101), (sym_list_pattern, STATE 8101),
    (sym_list_splat_pattern, STATE 6819), (sym_as_pattern, STATE 7969),
    (sym_expression, STATE 9883), (sym_primary_expression, STATE 7326),
    (sym_comptime_expression, STATE 7017), (sym_transfer_expression, STATE 7017),
    (sym_not_operator, STATE 7969), (sym_boolean_operator, STATE 7969),
    (sym_binary_operator, STATE 7017), (sym_unary_operator, STATE 7017),
    (sym_comparison_operator, STATE 7969), (sym_lambda, STATE 7969),
    (sym_assignment, STATE 12425), (sym_augmented_assignment, STATE 12425),
    (sym_pattern_list, STATE 8578), (sym_yield, STATE 12425), (sym_attribute, STATE 6836),
    (sym_subscript, STATE 6838), (sym_call, STATE 6845), (sym_mlir_type, STATE 7017),
    (sym_list, STATE 7017), (sym_set, STATE 7017), (sym_tuple, STATE 7017),
    (sym_dictionary, STATE 7017), (sym_struct_literal, STATE 7017),
    (sym_list_comprehension, STATE 7017), (sym_dictionary_comprehension, STATE 7017),
    (sym_set_comprehension, STATE 7017), (sym_generator_expression, STATE 7017),
    (sym_parenthesized_expression, STATE 7017), (sym_conditional_expression, STATE 7969),
    (sym_concatenated_string, STATE 7017), (sym_string, STATE 6751), (sym_await, STATE 7017),
    (aux_sym_module_repeat1, STATE 925), (aux_sym_decorated_definition_repeat1, STATE 3670),
    (sym_identifier, ACTIONS 9), (anon_sym_import, ACTIONS 11), (anon_sym_from, ACTIONS 13),
    (anon_sym_LPAREN, ACTIONS 15), (anon_sym_STAR, ACTIONS 17), (anon_sym_print, ACTIONS 19),
    (anon_sym_comptime, ACTIONS 99), (anon_sym_assert, ACTIONS 23),
    (anon_sym___comptime_assert, ACTIONS 25), (anon_sym_return, ACTIONS 27),
    (anon_sym_del, ACTIONS 29), (anon_sym_raise, ACTIONS 31), (anon_sym_pass, ACTIONS 33),
    (anon_sym_break, ACTIONS 35), (anon_sym_continue, ACTIONS 37),
    (anon_sym___extension, ACTIONS 101), (anon_sym___mlir_region, ACTIONS 103),
    (anon_sym_if, ACTIONS 105), (anon_sym_match, ACTIONS 107), (anon_sym_async, ACTIONS 109),
    (anon_sym_for, ACTIONS 111), (anon_sym_while, ACTIONS 113), (anon_sym_try, ACTIONS 115),
    (anon_sym_with, ACTIONS 117), (anon_sym_def, ACTIONS 119), (anon_sym_fn, ACTIONS 119),
    (anon_sym_LBRACK, ACTIONS 59), (anon_sym_LBRACE, ACTIONS 61), (anon_sym_global, ACTIONS 63),
    (anon_sym_nonlocal, ACTIONS 65), (anon_sym_exec, ACTIONS 67), (anon_sym_type, ACTIONS 69),
    (anon_sym_class, ACTIONS 121), (anon_sym_struct, ACTIONS 121), (anon_sym_mut, ACTIONS 73),
    (anon_sym_out, ACTIONS 73), (anon_sym_trait, ACTIONS 123), (anon_sym_AT, ACTIONS 77),
    (anon_sym_DASH, ACTIONS 79), (anon_sym_PLUS, ACTIONS 79), (anon_sym_ref, ACTIONS 81),
    (anon_sym_var, ACTIONS 81), (anon_sym_not, ACTIONS 83), (anon_sym_TILDE, ACTIONS 79),
    (anon_sym_lambda, ACTIONS 85), (anon_sym_yield, ACTIONS 87), (sym_ellipsis, ACTIONS 89),
    (anon_sym___mlir_type, ACTIONS 91), (sym_integer, ACTIONS 93), (sym_float, ACTIONS 89),
    (anon_sym_await, ACTIONS 95), (sym_true, ACTIONS 93), (sym_false, ACTIONS 93),
    (sym_none, ACTIONS 93), (sym_comment, ACTIONS 3), (sym_line_continuation, ACTIONS 3),
    (sym__dedent, ACTIONS 129), (sym_string_start, ACTIONS 97)]"

definition parse_table_336 :: "(nat \<times> nat) list" where "parse_table_336 = [
    (sym__statement, STATE 925), (sym__simple_statements, STATE 925),
    (sym_import_statement, STATE 11814), (sym_future_import_statement, STATE 11814),
    (sym_import_from_statement, STATE 11814), (sym_print_statement, STATE 11814),
    (sym_assert_statement, STATE 11814), (sym_comptime_assert_statement, STATE 11814),
    (sym_expression_statement, STATE 11814), (sym_tuple_expression, STATE 12425),
    (sym_named_expression, STATE 7969), (sym__named_expression_lhs, STATE 12752),
    (sym_return_statement, STATE 11814), (sym_delete_statement, STATE 11814),
    (sym_raise_statement, STATE 11814), (sym_pass_statement, STATE 11814),
    (sym_break_statement, STATE 11814), (sym_continue_statement, STATE 11814),
    (sym_extension_definition, STATE 925), (sym_mlir_region, STATE 925),
    (sym_comptime_statement, STATE 925), (sym_if_statement, STATE 925),
    (sym_match_statement, STATE 925), (sym_for_statement, STATE 925),
    (sym_while_statement, STATE 925), (sym_try_statement, STATE 925),
    (sym_with_statement, STATE 925), (sym_function_definition, STATE 925),
    (sym_global_statement, STATE 11814), (sym_nonlocal_statement, STATE 11814),
    (sym_exec_statement, STATE 11814), (sym_type_alias_statement, STATE 11814),
    (sym_parameterized_alias_statement, STATE 11814), (sym_class_definition, STATE 925),
    (sym_trait_definition, STATE 925), (sym_decorated_definition, STATE 925),
    (sym_decorator, STATE 3670), (sym_block, STATE 6067), (sym_pattern, STATE 8086),
    (sym_tuple_pattern, STATE 8101), (sym_list_pattern, STATE 8101),
    (sym_list_splat_pattern, STATE 6819), (sym_as_pattern, STATE 7969),
    (sym_expression, STATE 9883), (sym_primary_expression, STATE 7326),
    (sym_comptime_expression, STATE 7017), (sym_transfer_expression, STATE 7017),
    (sym_not_operator, STATE 7969), (sym_boolean_operator, STATE 7969),
    (sym_binary_operator, STATE 7017), (sym_unary_operator, STATE 7017),
    (sym_comparison_operator, STATE 7969), (sym_lambda, STATE 7969),
    (sym_assignment, STATE 12425), (sym_augmented_assignment, STATE 12425),
    (sym_pattern_list, STATE 8578), (sym_yield, STATE 12425), (sym_attribute, STATE 6836),
    (sym_subscript, STATE 6838), (sym_call, STATE 6845), (sym_mlir_type, STATE 7017),
    (sym_list, STATE 7017), (sym_set, STATE 7017), (sym_tuple, STATE 7017),
    (sym_dictionary, STATE 7017), (sym_struct_literal, STATE 7017),
    (sym_list_comprehension, STATE 7017), (sym_dictionary_comprehension, STATE 7017),
    (sym_set_comprehension, STATE 7017), (sym_generator_expression, STATE 7017),
    (sym_parenthesized_expression, STATE 7017), (sym_conditional_expression, STATE 7969),
    (sym_concatenated_string, STATE 7017), (sym_string, STATE 6751), (sym_await, STATE 7017),
    (aux_sym_module_repeat1, STATE 925), (aux_sym_decorated_definition_repeat1, STATE 3670),
    (sym_identifier, ACTIONS 9), (anon_sym_import, ACTIONS 11), (anon_sym_from, ACTIONS 13),
    (anon_sym_LPAREN, ACTIONS 15), (anon_sym_STAR, ACTIONS 17), (anon_sym_print, ACTIONS 19),
    (anon_sym_comptime, ACTIONS 99), (anon_sym_assert, ACTIONS 23),
    (anon_sym___comptime_assert, ACTIONS 25), (anon_sym_return, ACTIONS 27),
    (anon_sym_del, ACTIONS 29), (anon_sym_raise, ACTIONS 31), (anon_sym_pass, ACTIONS 33),
    (anon_sym_break, ACTIONS 35), (anon_sym_continue, ACTIONS 37),
    (anon_sym___extension, ACTIONS 101), (anon_sym___mlir_region, ACTIONS 103),
    (anon_sym_if, ACTIONS 105), (anon_sym_match, ACTIONS 107), (anon_sym_async, ACTIONS 109),
    (anon_sym_for, ACTIONS 111), (anon_sym_while, ACTIONS 113), (anon_sym_try, ACTIONS 115),
    (anon_sym_with, ACTIONS 117), (anon_sym_def, ACTIONS 119), (anon_sym_fn, ACTIONS 119),
    (anon_sym_LBRACK, ACTIONS 59), (anon_sym_LBRACE, ACTIONS 61), (anon_sym_global, ACTIONS 63),
    (anon_sym_nonlocal, ACTIONS 65), (anon_sym_exec, ACTIONS 67), (anon_sym_type, ACTIONS 69),
    (anon_sym_class, ACTIONS 121), (anon_sym_struct, ACTIONS 121), (anon_sym_mut, ACTIONS 73),
    (anon_sym_out, ACTIONS 73), (anon_sym_trait, ACTIONS 123), (anon_sym_AT, ACTIONS 77),
    (anon_sym_DASH, ACTIONS 79), (anon_sym_PLUS, ACTIONS 79), (anon_sym_ref, ACTIONS 81),
    (anon_sym_var, ACTIONS 81), (anon_sym_not, ACTIONS 83), (anon_sym_TILDE, ACTIONS 79),
    (anon_sym_lambda, ACTIONS 85), (anon_sym_yield, ACTIONS 87), (sym_ellipsis, ACTIONS 89),
    (anon_sym___mlir_type, ACTIONS 91), (sym_integer, ACTIONS 93), (sym_float, ACTIONS 89),
    (anon_sym_await, ACTIONS 95), (sym_true, ACTIONS 93), (sym_false, ACTIONS 93),
    (sym_none, ACTIONS 93), (sym_comment, ACTIONS 3), (sym_line_continuation, ACTIONS 3),
    (sym__dedent, ACTIONS 129), (sym_string_start, ACTIONS 97)]"

definition parse_table_337 :: "(nat \<times> nat) list" where "parse_table_337 = [
    (sym__statement, STATE 925), (sym__simple_statements, STATE 925),
    (sym_import_statement, STATE 11814), (sym_future_import_statement, STATE 11814),
    (sym_import_from_statement, STATE 11814), (sym_print_statement, STATE 11814),
    (sym_assert_statement, STATE 11814), (sym_comptime_assert_statement, STATE 11814),
    (sym_expression_statement, STATE 11814), (sym_tuple_expression, STATE 12425),
    (sym_named_expression, STATE 7969), (sym__named_expression_lhs, STATE 12752),
    (sym_return_statement, STATE 11814), (sym_delete_statement, STATE 11814),
    (sym_raise_statement, STATE 11814), (sym_pass_statement, STATE 11814),
    (sym_break_statement, STATE 11814), (sym_continue_statement, STATE 11814),
    (sym_extension_definition, STATE 925), (sym_mlir_region, STATE 925),
    (sym_comptime_statement, STATE 925), (sym_if_statement, STATE 925),
    (sym_match_statement, STATE 925), (sym_for_statement, STATE 925),
    (sym_while_statement, STATE 925), (sym_try_statement, STATE 925),
    (sym_with_statement, STATE 925), (sym_function_definition, STATE 925),
    (sym_global_statement, STATE 11814), (sym_nonlocal_statement, STATE 11814),
    (sym_exec_statement, STATE 11814), (sym_type_alias_statement, STATE 11814),
    (sym_parameterized_alias_statement, STATE 11814), (sym_class_definition, STATE 925),
    (sym_trait_definition, STATE 925), (sym_decorated_definition, STATE 925),
    (sym_decorator, STATE 3670), (sym_block, STATE 6072), (sym_pattern, STATE 8086),
    (sym_tuple_pattern, STATE 8101), (sym_list_pattern, STATE 8101),
    (sym_list_splat_pattern, STATE 6819), (sym_as_pattern, STATE 7969),
    (sym_expression, STATE 9883), (sym_primary_expression, STATE 7326),
    (sym_comptime_expression, STATE 7017), (sym_transfer_expression, STATE 7017),
    (sym_not_operator, STATE 7969), (sym_boolean_operator, STATE 7969),
    (sym_binary_operator, STATE 7017), (sym_unary_operator, STATE 7017),
    (sym_comparison_operator, STATE 7969), (sym_lambda, STATE 7969),
    (sym_assignment, STATE 12425), (sym_augmented_assignment, STATE 12425),
    (sym_pattern_list, STATE 8578), (sym_yield, STATE 12425), (sym_attribute, STATE 6836),
    (sym_subscript, STATE 6838), (sym_call, STATE 6845), (sym_mlir_type, STATE 7017),
    (sym_list, STATE 7017), (sym_set, STATE 7017), (sym_tuple, STATE 7017),
    (sym_dictionary, STATE 7017), (sym_struct_literal, STATE 7017),
    (sym_list_comprehension, STATE 7017), (sym_dictionary_comprehension, STATE 7017),
    (sym_set_comprehension, STATE 7017), (sym_generator_expression, STATE 7017),
    (sym_parenthesized_expression, STATE 7017), (sym_conditional_expression, STATE 7969),
    (sym_concatenated_string, STATE 7017), (sym_string, STATE 6751), (sym_await, STATE 7017),
    (aux_sym_module_repeat1, STATE 925), (aux_sym_decorated_definition_repeat1, STATE 3670),
    (sym_identifier, ACTIONS 9), (anon_sym_import, ACTIONS 11), (anon_sym_from, ACTIONS 13),
    (anon_sym_LPAREN, ACTIONS 15), (anon_sym_STAR, ACTIONS 17), (anon_sym_print, ACTIONS 19),
    (anon_sym_comptime, ACTIONS 99), (anon_sym_assert, ACTIONS 23),
    (anon_sym___comptime_assert, ACTIONS 25), (anon_sym_return, ACTIONS 27),
    (anon_sym_del, ACTIONS 29), (anon_sym_raise, ACTIONS 31), (anon_sym_pass, ACTIONS 33),
    (anon_sym_break, ACTIONS 35), (anon_sym_continue, ACTIONS 37),
    (anon_sym___extension, ACTIONS 101), (anon_sym___mlir_region, ACTIONS 103),
    (anon_sym_if, ACTIONS 105), (anon_sym_match, ACTIONS 107), (anon_sym_async, ACTIONS 109),
    (anon_sym_for, ACTIONS 111), (anon_sym_while, ACTIONS 113), (anon_sym_try, ACTIONS 115),
    (anon_sym_with, ACTIONS 117), (anon_sym_def, ACTIONS 119), (anon_sym_fn, ACTIONS 119),
    (anon_sym_LBRACK, ACTIONS 59), (anon_sym_LBRACE, ACTIONS 61), (anon_sym_global, ACTIONS 63),
    (anon_sym_nonlocal, ACTIONS 65), (anon_sym_exec, ACTIONS 67), (anon_sym_type, ACTIONS 69),
    (anon_sym_class, ACTIONS 121), (anon_sym_struct, ACTIONS 121), (anon_sym_mut, ACTIONS 73),
    (anon_sym_out, ACTIONS 73), (anon_sym_trait, ACTIONS 123), (anon_sym_AT, ACTIONS 77),
    (anon_sym_DASH, ACTIONS 79), (anon_sym_PLUS, ACTIONS 79), (anon_sym_ref, ACTIONS 81),
    (anon_sym_var, ACTIONS 81), (anon_sym_not, ACTIONS 83), (anon_sym_TILDE, ACTIONS 79),
    (anon_sym_lambda, ACTIONS 85), (anon_sym_yield, ACTIONS 87), (sym_ellipsis, ACTIONS 89),
    (anon_sym___mlir_type, ACTIONS 91), (sym_integer, ACTIONS 93), (sym_float, ACTIONS 89),
    (anon_sym_await, ACTIONS 95), (sym_true, ACTIONS 93), (sym_false, ACTIONS 93),
    (sym_none, ACTIONS 93), (sym_comment, ACTIONS 3), (sym_line_continuation, ACTIONS 3),
    (sym__dedent, ACTIONS 129), (sym_string_start, ACTIONS 97)]"

definition parse_table_338 :: "(nat \<times> nat) list" where "parse_table_338 = [
    (sym__statement, STATE 925), (sym__simple_statements, STATE 925),
    (sym_import_statement, STATE 11814), (sym_future_import_statement, STATE 11814),
    (sym_import_from_statement, STATE 11814), (sym_print_statement, STATE 11814),
    (sym_assert_statement, STATE 11814), (sym_comptime_assert_statement, STATE 11814),
    (sym_expression_statement, STATE 11814), (sym_tuple_expression, STATE 12425),
    (sym_named_expression, STATE 7969), (sym__named_expression_lhs, STATE 12752),
    (sym_return_statement, STATE 11814), (sym_delete_statement, STATE 11814),
    (sym_raise_statement, STATE 11814), (sym_pass_statement, STATE 11814),
    (sym_break_statement, STATE 11814), (sym_continue_statement, STATE 11814),
    (sym_extension_definition, STATE 925), (sym_mlir_region, STATE 925),
    (sym_comptime_statement, STATE 925), (sym_if_statement, STATE 925),
    (sym_match_statement, STATE 925), (sym_for_statement, STATE 925),
    (sym_while_statement, STATE 925), (sym_try_statement, STATE 925),
    (sym_with_statement, STATE 925), (sym_function_definition, STATE 925),
    (sym_global_statement, STATE 11814), (sym_nonlocal_statement, STATE 11814),
    (sym_exec_statement, STATE 11814), (sym_type_alias_statement, STATE 11814),
    (sym_parameterized_alias_statement, STATE 11814), (sym_class_definition, STATE 925),
    (sym_trait_definition, STATE 925), (sym_decorated_definition, STATE 925),
    (sym_decorator, STATE 3670), (sym_block, STATE 6079), (sym_pattern, STATE 8086),
    (sym_tuple_pattern, STATE 8101), (sym_list_pattern, STATE 8101),
    (sym_list_splat_pattern, STATE 6819), (sym_as_pattern, STATE 7969),
    (sym_expression, STATE 9883), (sym_primary_expression, STATE 7326),
    (sym_comptime_expression, STATE 7017), (sym_transfer_expression, STATE 7017),
    (sym_not_operator, STATE 7969), (sym_boolean_operator, STATE 7969),
    (sym_binary_operator, STATE 7017), (sym_unary_operator, STATE 7017),
    (sym_comparison_operator, STATE 7969), (sym_lambda, STATE 7969),
    (sym_assignment, STATE 12425), (sym_augmented_assignment, STATE 12425),
    (sym_pattern_list, STATE 8578), (sym_yield, STATE 12425), (sym_attribute, STATE 6836),
    (sym_subscript, STATE 6838), (sym_call, STATE 6845), (sym_mlir_type, STATE 7017),
    (sym_list, STATE 7017), (sym_set, STATE 7017), (sym_tuple, STATE 7017),
    (sym_dictionary, STATE 7017), (sym_struct_literal, STATE 7017),
    (sym_list_comprehension, STATE 7017), (sym_dictionary_comprehension, STATE 7017),
    (sym_set_comprehension, STATE 7017), (sym_generator_expression, STATE 7017),
    (sym_parenthesized_expression, STATE 7017), (sym_conditional_expression, STATE 7969),
    (sym_concatenated_string, STATE 7017), (sym_string, STATE 6751), (sym_await, STATE 7017),
    (aux_sym_module_repeat1, STATE 925), (aux_sym_decorated_definition_repeat1, STATE 3670),
    (sym_identifier, ACTIONS 9), (anon_sym_import, ACTIONS 11), (anon_sym_from, ACTIONS 13),
    (anon_sym_LPAREN, ACTIONS 15), (anon_sym_STAR, ACTIONS 17), (anon_sym_print, ACTIONS 19),
    (anon_sym_comptime, ACTIONS 99), (anon_sym_assert, ACTIONS 23),
    (anon_sym___comptime_assert, ACTIONS 25), (anon_sym_return, ACTIONS 27),
    (anon_sym_del, ACTIONS 29), (anon_sym_raise, ACTIONS 31), (anon_sym_pass, ACTIONS 33),
    (anon_sym_break, ACTIONS 35), (anon_sym_continue, ACTIONS 37),
    (anon_sym___extension, ACTIONS 101), (anon_sym___mlir_region, ACTIONS 103),
    (anon_sym_if, ACTIONS 105), (anon_sym_match, ACTIONS 107), (anon_sym_async, ACTIONS 109),
    (anon_sym_for, ACTIONS 111), (anon_sym_while, ACTIONS 113), (anon_sym_try, ACTIONS 115),
    (anon_sym_with, ACTIONS 117), (anon_sym_def, ACTIONS 119), (anon_sym_fn, ACTIONS 119),
    (anon_sym_LBRACK, ACTIONS 59), (anon_sym_LBRACE, ACTIONS 61), (anon_sym_global, ACTIONS 63),
    (anon_sym_nonlocal, ACTIONS 65), (anon_sym_exec, ACTIONS 67), (anon_sym_type, ACTIONS 69),
    (anon_sym_class, ACTIONS 121), (anon_sym_struct, ACTIONS 121), (anon_sym_mut, ACTIONS 73),
    (anon_sym_out, ACTIONS 73), (anon_sym_trait, ACTIONS 123), (anon_sym_AT, ACTIONS 77),
    (anon_sym_DASH, ACTIONS 79), (anon_sym_PLUS, ACTIONS 79), (anon_sym_ref, ACTIONS 81),
    (anon_sym_var, ACTIONS 81), (anon_sym_not, ACTIONS 83), (anon_sym_TILDE, ACTIONS 79),
    (anon_sym_lambda, ACTIONS 85), (anon_sym_yield, ACTIONS 87), (sym_ellipsis, ACTIONS 89),
    (anon_sym___mlir_type, ACTIONS 91), (sym_integer, ACTIONS 93), (sym_float, ACTIONS 89),
    (anon_sym_await, ACTIONS 95), (sym_true, ACTIONS 93), (sym_false, ACTIONS 93),
    (sym_none, ACTIONS 93), (sym_comment, ACTIONS 3), (sym_line_continuation, ACTIONS 3),
    (sym__dedent, ACTIONS 129), (sym_string_start, ACTIONS 97)]"

definition parse_table_339 :: "(nat \<times> nat) list" where "parse_table_339 = [
    (sym__statement, STATE 925), (sym__simple_statements, STATE 925),
    (sym_import_statement, STATE 11814), (sym_future_import_statement, STATE 11814),
    (sym_import_from_statement, STATE 11814), (sym_print_statement, STATE 11814),
    (sym_assert_statement, STATE 11814), (sym_comptime_assert_statement, STATE 11814),
    (sym_expression_statement, STATE 11814), (sym_tuple_expression, STATE 12425),
    (sym_named_expression, STATE 7969), (sym__named_expression_lhs, STATE 12752),
    (sym_return_statement, STATE 11814), (sym_delete_statement, STATE 11814),
    (sym_raise_statement, STATE 11814), (sym_pass_statement, STATE 11814),
    (sym_break_statement, STATE 11814), (sym_continue_statement, STATE 11814),
    (sym_extension_definition, STATE 925), (sym_mlir_region, STATE 925),
    (sym_comptime_statement, STATE 925), (sym_if_statement, STATE 925),
    (sym_match_statement, STATE 925), (sym_for_statement, STATE 925),
    (sym_while_statement, STATE 925), (sym_try_statement, STATE 925),
    (sym_with_statement, STATE 925), (sym_function_definition, STATE 925),
    (sym_global_statement, STATE 11814), (sym_nonlocal_statement, STATE 11814),
    (sym_exec_statement, STATE 11814), (sym_type_alias_statement, STATE 11814),
    (sym_parameterized_alias_statement, STATE 11814), (sym_class_definition, STATE 925),
    (sym_trait_definition, STATE 925), (sym_decorated_definition, STATE 925),
    (sym_decorator, STATE 3670), (sym_block, STATE 6087), (sym_pattern, STATE 8086),
    (sym_tuple_pattern, STATE 8101), (sym_list_pattern, STATE 8101),
    (sym_list_splat_pattern, STATE 6819), (sym_as_pattern, STATE 7969),
    (sym_expression, STATE 9883), (sym_primary_expression, STATE 7326),
    (sym_comptime_expression, STATE 7017), (sym_transfer_expression, STATE 7017),
    (sym_not_operator, STATE 7969), (sym_boolean_operator, STATE 7969),
    (sym_binary_operator, STATE 7017), (sym_unary_operator, STATE 7017),
    (sym_comparison_operator, STATE 7969), (sym_lambda, STATE 7969),
    (sym_assignment, STATE 12425), (sym_augmented_assignment, STATE 12425),
    (sym_pattern_list, STATE 8578), (sym_yield, STATE 12425), (sym_attribute, STATE 6836),
    (sym_subscript, STATE 6838), (sym_call, STATE 6845), (sym_mlir_type, STATE 7017),
    (sym_list, STATE 7017), (sym_set, STATE 7017), (sym_tuple, STATE 7017),
    (sym_dictionary, STATE 7017), (sym_struct_literal, STATE 7017),
    (sym_list_comprehension, STATE 7017), (sym_dictionary_comprehension, STATE 7017),
    (sym_set_comprehension, STATE 7017), (sym_generator_expression, STATE 7017),
    (sym_parenthesized_expression, STATE 7017), (sym_conditional_expression, STATE 7969),
    (sym_concatenated_string, STATE 7017), (sym_string, STATE 6751), (sym_await, STATE 7017),
    (aux_sym_module_repeat1, STATE 925), (aux_sym_decorated_definition_repeat1, STATE 3670),
    (sym_identifier, ACTIONS 9), (anon_sym_import, ACTIONS 11), (anon_sym_from, ACTIONS 13),
    (anon_sym_LPAREN, ACTIONS 15), (anon_sym_STAR, ACTIONS 17), (anon_sym_print, ACTIONS 19),
    (anon_sym_comptime, ACTIONS 99), (anon_sym_assert, ACTIONS 23),
    (anon_sym___comptime_assert, ACTIONS 25), (anon_sym_return, ACTIONS 27),
    (anon_sym_del, ACTIONS 29), (anon_sym_raise, ACTIONS 31), (anon_sym_pass, ACTIONS 33),
    (anon_sym_break, ACTIONS 35), (anon_sym_continue, ACTIONS 37),
    (anon_sym___extension, ACTIONS 101), (anon_sym___mlir_region, ACTIONS 103),
    (anon_sym_if, ACTIONS 105), (anon_sym_match, ACTIONS 107), (anon_sym_async, ACTIONS 109),
    (anon_sym_for, ACTIONS 111), (anon_sym_while, ACTIONS 113), (anon_sym_try, ACTIONS 115),
    (anon_sym_with, ACTIONS 117), (anon_sym_def, ACTIONS 119), (anon_sym_fn, ACTIONS 119),
    (anon_sym_LBRACK, ACTIONS 59), (anon_sym_LBRACE, ACTIONS 61), (anon_sym_global, ACTIONS 63),
    (anon_sym_nonlocal, ACTIONS 65), (anon_sym_exec, ACTIONS 67), (anon_sym_type, ACTIONS 69),
    (anon_sym_class, ACTIONS 121), (anon_sym_struct, ACTIONS 121), (anon_sym_mut, ACTIONS 73),
    (anon_sym_out, ACTIONS 73), (anon_sym_trait, ACTIONS 123), (anon_sym_AT, ACTIONS 77),
    (anon_sym_DASH, ACTIONS 79), (anon_sym_PLUS, ACTIONS 79), (anon_sym_ref, ACTIONS 81),
    (anon_sym_var, ACTIONS 81), (anon_sym_not, ACTIONS 83), (anon_sym_TILDE, ACTIONS 79),
    (anon_sym_lambda, ACTIONS 85), (anon_sym_yield, ACTIONS 87), (sym_ellipsis, ACTIONS 89),
    (anon_sym___mlir_type, ACTIONS 91), (sym_integer, ACTIONS 93), (sym_float, ACTIONS 89),
    (anon_sym_await, ACTIONS 95), (sym_true, ACTIONS 93), (sym_false, ACTIONS 93),
    (sym_none, ACTIONS 93), (sym_comment, ACTIONS 3), (sym_line_continuation, ACTIONS 3),
    (sym__dedent, ACTIONS 129), (sym_string_start, ACTIONS 97)]"

definition parse_table_340 :: "(nat \<times> nat) list" where "parse_table_340 = [
    (sym__statement, STATE 925), (sym__simple_statements, STATE 925),
    (sym_import_statement, STATE 11814), (sym_future_import_statement, STATE 11814),
    (sym_import_from_statement, STATE 11814), (sym_print_statement, STATE 11814),
    (sym_assert_statement, STATE 11814), (sym_comptime_assert_statement, STATE 11814),
    (sym_expression_statement, STATE 11814), (sym_tuple_expression, STATE 12425),
    (sym_named_expression, STATE 7969), (sym__named_expression_lhs, STATE 12752),
    (sym_return_statement, STATE 11814), (sym_delete_statement, STATE 11814),
    (sym_raise_statement, STATE 11814), (sym_pass_statement, STATE 11814),
    (sym_break_statement, STATE 11814), (sym_continue_statement, STATE 11814),
    (sym_extension_definition, STATE 925), (sym_mlir_region, STATE 925),
    (sym_comptime_statement, STATE 925), (sym_if_statement, STATE 925),
    (sym_match_statement, STATE 925), (sym_for_statement, STATE 925),
    (sym_while_statement, STATE 925), (sym_try_statement, STATE 925),
    (sym_with_statement, STATE 925), (sym_function_definition, STATE 925),
    (sym_global_statement, STATE 11814), (sym_nonlocal_statement, STATE 11814),
    (sym_exec_statement, STATE 11814), (sym_type_alias_statement, STATE 11814),
    (sym_parameterized_alias_statement, STATE 11814), (sym_class_definition, STATE 925),
    (sym_trait_definition, STATE 925), (sym_decorated_definition, STATE 925),
    (sym_decorator, STATE 3670), (sym_block, STATE 6107), (sym_pattern, STATE 8086),
    (sym_tuple_pattern, STATE 8101), (sym_list_pattern, STATE 8101),
    (sym_list_splat_pattern, STATE 6819), (sym_as_pattern, STATE 7969),
    (sym_expression, STATE 9883), (sym_primary_expression, STATE 7326),
    (sym_comptime_expression, STATE 7017), (sym_transfer_expression, STATE 7017),
    (sym_not_operator, STATE 7969), (sym_boolean_operator, STATE 7969),
    (sym_binary_operator, STATE 7017), (sym_unary_operator, STATE 7017),
    (sym_comparison_operator, STATE 7969), (sym_lambda, STATE 7969),
    (sym_assignment, STATE 12425), (sym_augmented_assignment, STATE 12425),
    (sym_pattern_list, STATE 8578), (sym_yield, STATE 12425), (sym_attribute, STATE 6836),
    (sym_subscript, STATE 6838), (sym_call, STATE 6845), (sym_mlir_type, STATE 7017),
    (sym_list, STATE 7017), (sym_set, STATE 7017), (sym_tuple, STATE 7017),
    (sym_dictionary, STATE 7017), (sym_struct_literal, STATE 7017),
    (sym_list_comprehension, STATE 7017), (sym_dictionary_comprehension, STATE 7017),
    (sym_set_comprehension, STATE 7017), (sym_generator_expression, STATE 7017),
    (sym_parenthesized_expression, STATE 7017), (sym_conditional_expression, STATE 7969),
    (sym_concatenated_string, STATE 7017), (sym_string, STATE 6751), (sym_await, STATE 7017),
    (aux_sym_module_repeat1, STATE 925), (aux_sym_decorated_definition_repeat1, STATE 3670),
    (sym_identifier, ACTIONS 9), (anon_sym_import, ACTIONS 11), (anon_sym_from, ACTIONS 13),
    (anon_sym_LPAREN, ACTIONS 15), (anon_sym_STAR, ACTIONS 17), (anon_sym_print, ACTIONS 19),
    (anon_sym_comptime, ACTIONS 99), (anon_sym_assert, ACTIONS 23),
    (anon_sym___comptime_assert, ACTIONS 25), (anon_sym_return, ACTIONS 27),
    (anon_sym_del, ACTIONS 29), (anon_sym_raise, ACTIONS 31), (anon_sym_pass, ACTIONS 33),
    (anon_sym_break, ACTIONS 35), (anon_sym_continue, ACTIONS 37),
    (anon_sym___extension, ACTIONS 101), (anon_sym___mlir_region, ACTIONS 103),
    (anon_sym_if, ACTIONS 105), (anon_sym_match, ACTIONS 107), (anon_sym_async, ACTIONS 109),
    (anon_sym_for, ACTIONS 111), (anon_sym_while, ACTIONS 113), (anon_sym_try, ACTIONS 115),
    (anon_sym_with, ACTIONS 117), (anon_sym_def, ACTIONS 119), (anon_sym_fn, ACTIONS 119),
    (anon_sym_LBRACK, ACTIONS 59), (anon_sym_LBRACE, ACTIONS 61), (anon_sym_global, ACTIONS 63),
    (anon_sym_nonlocal, ACTIONS 65), (anon_sym_exec, ACTIONS 67), (anon_sym_type, ACTIONS 69),
    (anon_sym_class, ACTIONS 121), (anon_sym_struct, ACTIONS 121), (anon_sym_mut, ACTIONS 73),
    (anon_sym_out, ACTIONS 73), (anon_sym_trait, ACTIONS 123), (anon_sym_AT, ACTIONS 77),
    (anon_sym_DASH, ACTIONS 79), (anon_sym_PLUS, ACTIONS 79), (anon_sym_ref, ACTIONS 81),
    (anon_sym_var, ACTIONS 81), (anon_sym_not, ACTIONS 83), (anon_sym_TILDE, ACTIONS 79),
    (anon_sym_lambda, ACTIONS 85), (anon_sym_yield, ACTIONS 87), (sym_ellipsis, ACTIONS 89),
    (anon_sym___mlir_type, ACTIONS 91), (sym_integer, ACTIONS 93), (sym_float, ACTIONS 89),
    (anon_sym_await, ACTIONS 95), (sym_true, ACTIONS 93), (sym_false, ACTIONS 93),
    (sym_none, ACTIONS 93), (sym_comment, ACTIONS 3), (sym_line_continuation, ACTIONS 3),
    (sym__dedent, ACTIONS 129), (sym_string_start, ACTIONS 97)]"

definition parse_table_341 :: "(nat \<times> nat) list" where "parse_table_341 = [
    (sym__statement, STATE 925), (sym__simple_statements, STATE 925),
    (sym_import_statement, STATE 11814), (sym_future_import_statement, STATE 11814),
    (sym_import_from_statement, STATE 11814), (sym_print_statement, STATE 11814),
    (sym_assert_statement, STATE 11814), (sym_comptime_assert_statement, STATE 11814),
    (sym_expression_statement, STATE 11814), (sym_tuple_expression, STATE 12425),
    (sym_named_expression, STATE 7969), (sym__named_expression_lhs, STATE 12752),
    (sym_return_statement, STATE 11814), (sym_delete_statement, STATE 11814),
    (sym_raise_statement, STATE 11814), (sym_pass_statement, STATE 11814),
    (sym_break_statement, STATE 11814), (sym_continue_statement, STATE 11814),
    (sym_extension_definition, STATE 925), (sym_mlir_region, STATE 925),
    (sym_comptime_statement, STATE 925), (sym_if_statement, STATE 925),
    (sym_match_statement, STATE 925), (sym_for_statement, STATE 925),
    (sym_while_statement, STATE 925), (sym_try_statement, STATE 925),
    (sym_with_statement, STATE 925), (sym_function_definition, STATE 925),
    (sym_global_statement, STATE 11814), (sym_nonlocal_statement, STATE 11814),
    (sym_exec_statement, STATE 11814), (sym_type_alias_statement, STATE 11814),
    (sym_parameterized_alias_statement, STATE 11814), (sym_class_definition, STATE 925),
    (sym_trait_definition, STATE 925), (sym_decorated_definition, STATE 925),
    (sym_decorator, STATE 3670), (sym_block, STATE 6120), (sym_pattern, STATE 8086),
    (sym_tuple_pattern, STATE 8101), (sym_list_pattern, STATE 8101),
    (sym_list_splat_pattern, STATE 6819), (sym_as_pattern, STATE 7969),
    (sym_expression, STATE 9883), (sym_primary_expression, STATE 7326),
    (sym_comptime_expression, STATE 7017), (sym_transfer_expression, STATE 7017),
    (sym_not_operator, STATE 7969), (sym_boolean_operator, STATE 7969),
    (sym_binary_operator, STATE 7017), (sym_unary_operator, STATE 7017),
    (sym_comparison_operator, STATE 7969), (sym_lambda, STATE 7969),
    (sym_assignment, STATE 12425), (sym_augmented_assignment, STATE 12425),
    (sym_pattern_list, STATE 8578), (sym_yield, STATE 12425), (sym_attribute, STATE 6836),
    (sym_subscript, STATE 6838), (sym_call, STATE 6845), (sym_mlir_type, STATE 7017),
    (sym_list, STATE 7017), (sym_set, STATE 7017), (sym_tuple, STATE 7017),
    (sym_dictionary, STATE 7017), (sym_struct_literal, STATE 7017),
    (sym_list_comprehension, STATE 7017), (sym_dictionary_comprehension, STATE 7017),
    (sym_set_comprehension, STATE 7017), (sym_generator_expression, STATE 7017),
    (sym_parenthesized_expression, STATE 7017), (sym_conditional_expression, STATE 7969),
    (sym_concatenated_string, STATE 7017), (sym_string, STATE 6751), (sym_await, STATE 7017),
    (aux_sym_module_repeat1, STATE 925), (aux_sym_decorated_definition_repeat1, STATE 3670),
    (sym_identifier, ACTIONS 9), (anon_sym_import, ACTIONS 11), (anon_sym_from, ACTIONS 13),
    (anon_sym_LPAREN, ACTIONS 15), (anon_sym_STAR, ACTIONS 17), (anon_sym_print, ACTIONS 19),
    (anon_sym_comptime, ACTIONS 99), (anon_sym_assert, ACTIONS 23),
    (anon_sym___comptime_assert, ACTIONS 25), (anon_sym_return, ACTIONS 27),
    (anon_sym_del, ACTIONS 29), (anon_sym_raise, ACTIONS 31), (anon_sym_pass, ACTIONS 33),
    (anon_sym_break, ACTIONS 35), (anon_sym_continue, ACTIONS 37),
    (anon_sym___extension, ACTIONS 101), (anon_sym___mlir_region, ACTIONS 103),
    (anon_sym_if, ACTIONS 105), (anon_sym_match, ACTIONS 107), (anon_sym_async, ACTIONS 109),
    (anon_sym_for, ACTIONS 111), (anon_sym_while, ACTIONS 113), (anon_sym_try, ACTIONS 115),
    (anon_sym_with, ACTIONS 117), (anon_sym_def, ACTIONS 119), (anon_sym_fn, ACTIONS 119),
    (anon_sym_LBRACK, ACTIONS 59), (anon_sym_LBRACE, ACTIONS 61), (anon_sym_global, ACTIONS 63),
    (anon_sym_nonlocal, ACTIONS 65), (anon_sym_exec, ACTIONS 67), (anon_sym_type, ACTIONS 69),
    (anon_sym_class, ACTIONS 121), (anon_sym_struct, ACTIONS 121), (anon_sym_mut, ACTIONS 73),
    (anon_sym_out, ACTIONS 73), (anon_sym_trait, ACTIONS 123), (anon_sym_AT, ACTIONS 77),
    (anon_sym_DASH, ACTIONS 79), (anon_sym_PLUS, ACTIONS 79), (anon_sym_ref, ACTIONS 81),
    (anon_sym_var, ACTIONS 81), (anon_sym_not, ACTIONS 83), (anon_sym_TILDE, ACTIONS 79),
    (anon_sym_lambda, ACTIONS 85), (anon_sym_yield, ACTIONS 87), (sym_ellipsis, ACTIONS 89),
    (anon_sym___mlir_type, ACTIONS 91), (sym_integer, ACTIONS 93), (sym_float, ACTIONS 89),
    (anon_sym_await, ACTIONS 95), (sym_true, ACTIONS 93), (sym_false, ACTIONS 93),
    (sym_none, ACTIONS 93), (sym_comment, ACTIONS 3), (sym_line_continuation, ACTIONS 3),
    (sym__dedent, ACTIONS 129), (sym_string_start, ACTIONS 97)]"

definition parse_table_342 :: "(nat \<times> nat) list" where "parse_table_342 = [
    (sym__statement, STATE 925), (sym__simple_statements, STATE 925),
    (sym_import_statement, STATE 11814), (sym_future_import_statement, STATE 11814),
    (sym_import_from_statement, STATE 11814), (sym_print_statement, STATE 11814),
    (sym_assert_statement, STATE 11814), (sym_comptime_assert_statement, STATE 11814),
    (sym_expression_statement, STATE 11814), (sym_tuple_expression, STATE 12425),
    (sym_named_expression, STATE 7969), (sym__named_expression_lhs, STATE 12752),
    (sym_return_statement, STATE 11814), (sym_delete_statement, STATE 11814),
    (sym_raise_statement, STATE 11814), (sym_pass_statement, STATE 11814),
    (sym_break_statement, STATE 11814), (sym_continue_statement, STATE 11814),
    (sym_extension_definition, STATE 925), (sym_mlir_region, STATE 925),
    (sym_comptime_statement, STATE 925), (sym_if_statement, STATE 925),
    (sym_match_statement, STATE 925), (sym_for_statement, STATE 925),
    (sym_while_statement, STATE 925), (sym_try_statement, STATE 925),
    (sym_with_statement, STATE 925), (sym_function_definition, STATE 925),
    (sym_global_statement, STATE 11814), (sym_nonlocal_statement, STATE 11814),
    (sym_exec_statement, STATE 11814), (sym_type_alias_statement, STATE 11814),
    (sym_parameterized_alias_statement, STATE 11814), (sym_class_definition, STATE 925),
    (sym_trait_definition, STATE 925), (sym_decorated_definition, STATE 925),
    (sym_decorator, STATE 3670), (sym_block, STATE 6121), (sym_pattern, STATE 8086),
    (sym_tuple_pattern, STATE 8101), (sym_list_pattern, STATE 8101),
    (sym_list_splat_pattern, STATE 6819), (sym_as_pattern, STATE 7969),
    (sym_expression, STATE 9883), (sym_primary_expression, STATE 7326),
    (sym_comptime_expression, STATE 7017), (sym_transfer_expression, STATE 7017),
    (sym_not_operator, STATE 7969), (sym_boolean_operator, STATE 7969),
    (sym_binary_operator, STATE 7017), (sym_unary_operator, STATE 7017),
    (sym_comparison_operator, STATE 7969), (sym_lambda, STATE 7969),
    (sym_assignment, STATE 12425), (sym_augmented_assignment, STATE 12425),
    (sym_pattern_list, STATE 8578), (sym_yield, STATE 12425), (sym_attribute, STATE 6836),
    (sym_subscript, STATE 6838), (sym_call, STATE 6845), (sym_mlir_type, STATE 7017),
    (sym_list, STATE 7017), (sym_set, STATE 7017), (sym_tuple, STATE 7017),
    (sym_dictionary, STATE 7017), (sym_struct_literal, STATE 7017),
    (sym_list_comprehension, STATE 7017), (sym_dictionary_comprehension, STATE 7017),
    (sym_set_comprehension, STATE 7017), (sym_generator_expression, STATE 7017),
    (sym_parenthesized_expression, STATE 7017), (sym_conditional_expression, STATE 7969),
    (sym_concatenated_string, STATE 7017), (sym_string, STATE 6751), (sym_await, STATE 7017),
    (aux_sym_module_repeat1, STATE 925), (aux_sym_decorated_definition_repeat1, STATE 3670),
    (sym_identifier, ACTIONS 9), (anon_sym_import, ACTIONS 11), (anon_sym_from, ACTIONS 13),
    (anon_sym_LPAREN, ACTIONS 15), (anon_sym_STAR, ACTIONS 17), (anon_sym_print, ACTIONS 19),
    (anon_sym_comptime, ACTIONS 99), (anon_sym_assert, ACTIONS 23),
    (anon_sym___comptime_assert, ACTIONS 25), (anon_sym_return, ACTIONS 27),
    (anon_sym_del, ACTIONS 29), (anon_sym_raise, ACTIONS 31), (anon_sym_pass, ACTIONS 33),
    (anon_sym_break, ACTIONS 35), (anon_sym_continue, ACTIONS 37),
    (anon_sym___extension, ACTIONS 101), (anon_sym___mlir_region, ACTIONS 103),
    (anon_sym_if, ACTIONS 105), (anon_sym_match, ACTIONS 107), (anon_sym_async, ACTIONS 109),
    (anon_sym_for, ACTIONS 111), (anon_sym_while, ACTIONS 113), (anon_sym_try, ACTIONS 115),
    (anon_sym_with, ACTIONS 117), (anon_sym_def, ACTIONS 119), (anon_sym_fn, ACTIONS 119),
    (anon_sym_LBRACK, ACTIONS 59), (anon_sym_LBRACE, ACTIONS 61), (anon_sym_global, ACTIONS 63),
    (anon_sym_nonlocal, ACTIONS 65), (anon_sym_exec, ACTIONS 67), (anon_sym_type, ACTIONS 69),
    (anon_sym_class, ACTIONS 121), (anon_sym_struct, ACTIONS 121), (anon_sym_mut, ACTIONS 73),
    (anon_sym_out, ACTIONS 73), (anon_sym_trait, ACTIONS 123), (anon_sym_AT, ACTIONS 77),
    (anon_sym_DASH, ACTIONS 79), (anon_sym_PLUS, ACTIONS 79), (anon_sym_ref, ACTIONS 81),
    (anon_sym_var, ACTIONS 81), (anon_sym_not, ACTIONS 83), (anon_sym_TILDE, ACTIONS 79),
    (anon_sym_lambda, ACTIONS 85), (anon_sym_yield, ACTIONS 87), (sym_ellipsis, ACTIONS 89),
    (anon_sym___mlir_type, ACTIONS 91), (sym_integer, ACTIONS 93), (sym_float, ACTIONS 89),
    (anon_sym_await, ACTIONS 95), (sym_true, ACTIONS 93), (sym_false, ACTIONS 93),
    (sym_none, ACTIONS 93), (sym_comment, ACTIONS 3), (sym_line_continuation, ACTIONS 3),
    (sym__dedent, ACTIONS 129), (sym_string_start, ACTIONS 97)]"

definition parse_table_343 :: "(nat \<times> nat) list" where "parse_table_343 = [
    (sym__statement, STATE 925), (sym__simple_statements, STATE 925),
    (sym_import_statement, STATE 11814), (sym_future_import_statement, STATE 11814),
    (sym_import_from_statement, STATE 11814), (sym_print_statement, STATE 11814),
    (sym_assert_statement, STATE 11814), (sym_comptime_assert_statement, STATE 11814),
    (sym_expression_statement, STATE 11814), (sym_tuple_expression, STATE 12425),
    (sym_named_expression, STATE 7969), (sym__named_expression_lhs, STATE 12752),
    (sym_return_statement, STATE 11814), (sym_delete_statement, STATE 11814),
    (sym_raise_statement, STATE 11814), (sym_pass_statement, STATE 11814),
    (sym_break_statement, STATE 11814), (sym_continue_statement, STATE 11814),
    (sym_extension_definition, STATE 925), (sym_mlir_region, STATE 925),
    (sym_comptime_statement, STATE 925), (sym_if_statement, STATE 925),
    (sym_match_statement, STATE 925), (sym_for_statement, STATE 925),
    (sym_while_statement, STATE 925), (sym_try_statement, STATE 925),
    (sym_with_statement, STATE 925), (sym_function_definition, STATE 925),
    (sym_global_statement, STATE 11814), (sym_nonlocal_statement, STATE 11814),
    (sym_exec_statement, STATE 11814), (sym_type_alias_statement, STATE 11814),
    (sym_parameterized_alias_statement, STATE 11814), (sym_class_definition, STATE 925),
    (sym_trait_definition, STATE 925), (sym_decorated_definition, STATE 925),
    (sym_decorator, STATE 3670), (sym_block, STATE 6125), (sym_pattern, STATE 8086),
    (sym_tuple_pattern, STATE 8101), (sym_list_pattern, STATE 8101),
    (sym_list_splat_pattern, STATE 6819), (sym_as_pattern, STATE 7969),
    (sym_expression, STATE 9883), (sym_primary_expression, STATE 7326),
    (sym_comptime_expression, STATE 7017), (sym_transfer_expression, STATE 7017),
    (sym_not_operator, STATE 7969), (sym_boolean_operator, STATE 7969),
    (sym_binary_operator, STATE 7017), (sym_unary_operator, STATE 7017),
    (sym_comparison_operator, STATE 7969), (sym_lambda, STATE 7969),
    (sym_assignment, STATE 12425), (sym_augmented_assignment, STATE 12425),
    (sym_pattern_list, STATE 8578), (sym_yield, STATE 12425), (sym_attribute, STATE 6836),
    (sym_subscript, STATE 6838), (sym_call, STATE 6845), (sym_mlir_type, STATE 7017),
    (sym_list, STATE 7017), (sym_set, STATE 7017), (sym_tuple, STATE 7017),
    (sym_dictionary, STATE 7017), (sym_struct_literal, STATE 7017),
    (sym_list_comprehension, STATE 7017), (sym_dictionary_comprehension, STATE 7017),
    (sym_set_comprehension, STATE 7017), (sym_generator_expression, STATE 7017),
    (sym_parenthesized_expression, STATE 7017), (sym_conditional_expression, STATE 7969),
    (sym_concatenated_string, STATE 7017), (sym_string, STATE 6751), (sym_await, STATE 7017),
    (aux_sym_module_repeat1, STATE 925), (aux_sym_decorated_definition_repeat1, STATE 3670),
    (sym_identifier, ACTIONS 9), (anon_sym_import, ACTIONS 11), (anon_sym_from, ACTIONS 13),
    (anon_sym_LPAREN, ACTIONS 15), (anon_sym_STAR, ACTIONS 17), (anon_sym_print, ACTIONS 19),
    (anon_sym_comptime, ACTIONS 99), (anon_sym_assert, ACTIONS 23),
    (anon_sym___comptime_assert, ACTIONS 25), (anon_sym_return, ACTIONS 27),
    (anon_sym_del, ACTIONS 29), (anon_sym_raise, ACTIONS 31), (anon_sym_pass, ACTIONS 33),
    (anon_sym_break, ACTIONS 35), (anon_sym_continue, ACTIONS 37),
    (anon_sym___extension, ACTIONS 101), (anon_sym___mlir_region, ACTIONS 103),
    (anon_sym_if, ACTIONS 105), (anon_sym_match, ACTIONS 107), (anon_sym_async, ACTIONS 109),
    (anon_sym_for, ACTIONS 111), (anon_sym_while, ACTIONS 113), (anon_sym_try, ACTIONS 115),
    (anon_sym_with, ACTIONS 117), (anon_sym_def, ACTIONS 119), (anon_sym_fn, ACTIONS 119),
    (anon_sym_LBRACK, ACTIONS 59), (anon_sym_LBRACE, ACTIONS 61), (anon_sym_global, ACTIONS 63),
    (anon_sym_nonlocal, ACTIONS 65), (anon_sym_exec, ACTIONS 67), (anon_sym_type, ACTIONS 69),
    (anon_sym_class, ACTIONS 121), (anon_sym_struct, ACTIONS 121), (anon_sym_mut, ACTIONS 73),
    (anon_sym_out, ACTIONS 73), (anon_sym_trait, ACTIONS 123), (anon_sym_AT, ACTIONS 77),
    (anon_sym_DASH, ACTIONS 79), (anon_sym_PLUS, ACTIONS 79), (anon_sym_ref, ACTIONS 81),
    (anon_sym_var, ACTIONS 81), (anon_sym_not, ACTIONS 83), (anon_sym_TILDE, ACTIONS 79),
    (anon_sym_lambda, ACTIONS 85), (anon_sym_yield, ACTIONS 87), (sym_ellipsis, ACTIONS 89),
    (anon_sym___mlir_type, ACTIONS 91), (sym_integer, ACTIONS 93), (sym_float, ACTIONS 89),
    (anon_sym_await, ACTIONS 95), (sym_true, ACTIONS 93), (sym_false, ACTIONS 93),
    (sym_none, ACTIONS 93), (sym_comment, ACTIONS 3), (sym_line_continuation, ACTIONS 3),
    (sym__dedent, ACTIONS 129), (sym_string_start, ACTIONS 97)]"

definition parse_table_344 :: "(nat \<times> nat) list" where "parse_table_344 = [
    (sym__statement, STATE 925), (sym__simple_statements, STATE 925),
    (sym_import_statement, STATE 11814), (sym_future_import_statement, STATE 11814),
    (sym_import_from_statement, STATE 11814), (sym_print_statement, STATE 11814),
    (sym_assert_statement, STATE 11814), (sym_comptime_assert_statement, STATE 11814),
    (sym_expression_statement, STATE 11814), (sym_tuple_expression, STATE 12425),
    (sym_named_expression, STATE 7969), (sym__named_expression_lhs, STATE 12752),
    (sym_return_statement, STATE 11814), (sym_delete_statement, STATE 11814),
    (sym_raise_statement, STATE 11814), (sym_pass_statement, STATE 11814),
    (sym_break_statement, STATE 11814), (sym_continue_statement, STATE 11814),
    (sym_extension_definition, STATE 925), (sym_mlir_region, STATE 925),
    (sym_comptime_statement, STATE 925), (sym_if_statement, STATE 925),
    (sym_match_statement, STATE 925), (sym_for_statement, STATE 925),
    (sym_while_statement, STATE 925), (sym_try_statement, STATE 925),
    (sym_with_statement, STATE 925), (sym_function_definition, STATE 925),
    (sym_global_statement, STATE 11814), (sym_nonlocal_statement, STATE 11814),
    (sym_exec_statement, STATE 11814), (sym_type_alias_statement, STATE 11814),
    (sym_parameterized_alias_statement, STATE 11814), (sym_class_definition, STATE 925),
    (sym_trait_definition, STATE 925), (sym_decorated_definition, STATE 925),
    (sym_decorator, STATE 3670), (sym_block, STATE 6131), (sym_pattern, STATE 8086),
    (sym_tuple_pattern, STATE 8101), (sym_list_pattern, STATE 8101),
    (sym_list_splat_pattern, STATE 6819), (sym_as_pattern, STATE 7969),
    (sym_expression, STATE 9883), (sym_primary_expression, STATE 7326),
    (sym_comptime_expression, STATE 7017), (sym_transfer_expression, STATE 7017),
    (sym_not_operator, STATE 7969), (sym_boolean_operator, STATE 7969),
    (sym_binary_operator, STATE 7017), (sym_unary_operator, STATE 7017),
    (sym_comparison_operator, STATE 7969), (sym_lambda, STATE 7969),
    (sym_assignment, STATE 12425), (sym_augmented_assignment, STATE 12425),
    (sym_pattern_list, STATE 8578), (sym_yield, STATE 12425), (sym_attribute, STATE 6836),
    (sym_subscript, STATE 6838), (sym_call, STATE 6845), (sym_mlir_type, STATE 7017),
    (sym_list, STATE 7017), (sym_set, STATE 7017), (sym_tuple, STATE 7017),
    (sym_dictionary, STATE 7017), (sym_struct_literal, STATE 7017),
    (sym_list_comprehension, STATE 7017), (sym_dictionary_comprehension, STATE 7017),
    (sym_set_comprehension, STATE 7017), (sym_generator_expression, STATE 7017),
    (sym_parenthesized_expression, STATE 7017), (sym_conditional_expression, STATE 7969),
    (sym_concatenated_string, STATE 7017), (sym_string, STATE 6751), (sym_await, STATE 7017),
    (aux_sym_module_repeat1, STATE 925), (aux_sym_decorated_definition_repeat1, STATE 3670),
    (sym_identifier, ACTIONS 9), (anon_sym_import, ACTIONS 11), (anon_sym_from, ACTIONS 13),
    (anon_sym_LPAREN, ACTIONS 15), (anon_sym_STAR, ACTIONS 17), (anon_sym_print, ACTIONS 19),
    (anon_sym_comptime, ACTIONS 99), (anon_sym_assert, ACTIONS 23),
    (anon_sym___comptime_assert, ACTIONS 25), (anon_sym_return, ACTIONS 27),
    (anon_sym_del, ACTIONS 29), (anon_sym_raise, ACTIONS 31), (anon_sym_pass, ACTIONS 33),
    (anon_sym_break, ACTIONS 35), (anon_sym_continue, ACTIONS 37),
    (anon_sym___extension, ACTIONS 101), (anon_sym___mlir_region, ACTIONS 103),
    (anon_sym_if, ACTIONS 105), (anon_sym_match, ACTIONS 107), (anon_sym_async, ACTIONS 109),
    (anon_sym_for, ACTIONS 111), (anon_sym_while, ACTIONS 113), (anon_sym_try, ACTIONS 115),
    (anon_sym_with, ACTIONS 117), (anon_sym_def, ACTIONS 119), (anon_sym_fn, ACTIONS 119),
    (anon_sym_LBRACK, ACTIONS 59), (anon_sym_LBRACE, ACTIONS 61), (anon_sym_global, ACTIONS 63),
    (anon_sym_nonlocal, ACTIONS 65), (anon_sym_exec, ACTIONS 67), (anon_sym_type, ACTIONS 69),
    (anon_sym_class, ACTIONS 121), (anon_sym_struct, ACTIONS 121), (anon_sym_mut, ACTIONS 73),
    (anon_sym_out, ACTIONS 73), (anon_sym_trait, ACTIONS 123), (anon_sym_AT, ACTIONS 77),
    (anon_sym_DASH, ACTIONS 79), (anon_sym_PLUS, ACTIONS 79), (anon_sym_ref, ACTIONS 81),
    (anon_sym_var, ACTIONS 81), (anon_sym_not, ACTIONS 83), (anon_sym_TILDE, ACTIONS 79),
    (anon_sym_lambda, ACTIONS 85), (anon_sym_yield, ACTIONS 87), (sym_ellipsis, ACTIONS 89),
    (anon_sym___mlir_type, ACTIONS 91), (sym_integer, ACTIONS 93), (sym_float, ACTIONS 89),
    (anon_sym_await, ACTIONS 95), (sym_true, ACTIONS 93), (sym_false, ACTIONS 93),
    (sym_none, ACTIONS 93), (sym_comment, ACTIONS 3), (sym_line_continuation, ACTIONS 3),
    (sym__dedent, ACTIONS 129), (sym_string_start, ACTIONS 97)]"

definition parse_table_345 :: "(nat \<times> nat) list" where "parse_table_345 = [
    (sym__statement, STATE 925), (sym__simple_statements, STATE 925),
    (sym_import_statement, STATE 11814), (sym_future_import_statement, STATE 11814),
    (sym_import_from_statement, STATE 11814), (sym_print_statement, STATE 11814),
    (sym_assert_statement, STATE 11814), (sym_comptime_assert_statement, STATE 11814),
    (sym_expression_statement, STATE 11814), (sym_tuple_expression, STATE 12425),
    (sym_named_expression, STATE 7969), (sym__named_expression_lhs, STATE 12752),
    (sym_return_statement, STATE 11814), (sym_delete_statement, STATE 11814),
    (sym_raise_statement, STATE 11814), (sym_pass_statement, STATE 11814),
    (sym_break_statement, STATE 11814), (sym_continue_statement, STATE 11814),
    (sym_extension_definition, STATE 925), (sym_mlir_region, STATE 925),
    (sym_comptime_statement, STATE 925), (sym_if_statement, STATE 925),
    (sym_match_statement, STATE 925), (sym_for_statement, STATE 925),
    (sym_while_statement, STATE 925), (sym_try_statement, STATE 925),
    (sym_with_statement, STATE 925), (sym_function_definition, STATE 925),
    (sym_global_statement, STATE 11814), (sym_nonlocal_statement, STATE 11814),
    (sym_exec_statement, STATE 11814), (sym_type_alias_statement, STATE 11814),
    (sym_parameterized_alias_statement, STATE 11814), (sym_class_definition, STATE 925),
    (sym_trait_definition, STATE 925), (sym_decorated_definition, STATE 925),
    (sym_decorator, STATE 3670), (sym_block, STATE 6141), (sym_pattern, STATE 8086),
    (sym_tuple_pattern, STATE 8101), (sym_list_pattern, STATE 8101),
    (sym_list_splat_pattern, STATE 6819), (sym_as_pattern, STATE 7969),
    (sym_expression, STATE 9883), (sym_primary_expression, STATE 7326),
    (sym_comptime_expression, STATE 7017), (sym_transfer_expression, STATE 7017),
    (sym_not_operator, STATE 7969), (sym_boolean_operator, STATE 7969),
    (sym_binary_operator, STATE 7017), (sym_unary_operator, STATE 7017),
    (sym_comparison_operator, STATE 7969), (sym_lambda, STATE 7969),
    (sym_assignment, STATE 12425), (sym_augmented_assignment, STATE 12425),
    (sym_pattern_list, STATE 8578), (sym_yield, STATE 12425), (sym_attribute, STATE 6836),
    (sym_subscript, STATE 6838), (sym_call, STATE 6845), (sym_mlir_type, STATE 7017),
    (sym_list, STATE 7017), (sym_set, STATE 7017), (sym_tuple, STATE 7017),
    (sym_dictionary, STATE 7017), (sym_struct_literal, STATE 7017),
    (sym_list_comprehension, STATE 7017), (sym_dictionary_comprehension, STATE 7017),
    (sym_set_comprehension, STATE 7017), (sym_generator_expression, STATE 7017),
    (sym_parenthesized_expression, STATE 7017), (sym_conditional_expression, STATE 7969),
    (sym_concatenated_string, STATE 7017), (sym_string, STATE 6751), (sym_await, STATE 7017),
    (aux_sym_module_repeat1, STATE 925), (aux_sym_decorated_definition_repeat1, STATE 3670),
    (sym_identifier, ACTIONS 9), (anon_sym_import, ACTIONS 11), (anon_sym_from, ACTIONS 13),
    (anon_sym_LPAREN, ACTIONS 15), (anon_sym_STAR, ACTIONS 17), (anon_sym_print, ACTIONS 19),
    (anon_sym_comptime, ACTIONS 99), (anon_sym_assert, ACTIONS 23),
    (anon_sym___comptime_assert, ACTIONS 25), (anon_sym_return, ACTIONS 27),
    (anon_sym_del, ACTIONS 29), (anon_sym_raise, ACTIONS 31), (anon_sym_pass, ACTIONS 33),
    (anon_sym_break, ACTIONS 35), (anon_sym_continue, ACTIONS 37),
    (anon_sym___extension, ACTIONS 101), (anon_sym___mlir_region, ACTIONS 103),
    (anon_sym_if, ACTIONS 105), (anon_sym_match, ACTIONS 107), (anon_sym_async, ACTIONS 109),
    (anon_sym_for, ACTIONS 111), (anon_sym_while, ACTIONS 113), (anon_sym_try, ACTIONS 115),
    (anon_sym_with, ACTIONS 117), (anon_sym_def, ACTIONS 119), (anon_sym_fn, ACTIONS 119),
    (anon_sym_LBRACK, ACTIONS 59), (anon_sym_LBRACE, ACTIONS 61), (anon_sym_global, ACTIONS 63),
    (anon_sym_nonlocal, ACTIONS 65), (anon_sym_exec, ACTIONS 67), (anon_sym_type, ACTIONS 69),
    (anon_sym_class, ACTIONS 121), (anon_sym_struct, ACTIONS 121), (anon_sym_mut, ACTIONS 73),
    (anon_sym_out, ACTIONS 73), (anon_sym_trait, ACTIONS 123), (anon_sym_AT, ACTIONS 77),
    (anon_sym_DASH, ACTIONS 79), (anon_sym_PLUS, ACTIONS 79), (anon_sym_ref, ACTIONS 81),
    (anon_sym_var, ACTIONS 81), (anon_sym_not, ACTIONS 83), (anon_sym_TILDE, ACTIONS 79),
    (anon_sym_lambda, ACTIONS 85), (anon_sym_yield, ACTIONS 87), (sym_ellipsis, ACTIONS 89),
    (anon_sym___mlir_type, ACTIONS 91), (sym_integer, ACTIONS 93), (sym_float, ACTIONS 89),
    (anon_sym_await, ACTIONS 95), (sym_true, ACTIONS 93), (sym_false, ACTIONS 93),
    (sym_none, ACTIONS 93), (sym_comment, ACTIONS 3), (sym_line_continuation, ACTIONS 3),
    (sym__dedent, ACTIONS 129), (sym_string_start, ACTIONS 97)]"

definition parse_table_346 :: "(nat \<times> nat) list" where "parse_table_346 = [
    (sym__statement, STATE 925), (sym__simple_statements, STATE 925),
    (sym_import_statement, STATE 11814), (sym_future_import_statement, STATE 11814),
    (sym_import_from_statement, STATE 11814), (sym_print_statement, STATE 11814),
    (sym_assert_statement, STATE 11814), (sym_comptime_assert_statement, STATE 11814),
    (sym_expression_statement, STATE 11814), (sym_tuple_expression, STATE 12425),
    (sym_named_expression, STATE 7969), (sym__named_expression_lhs, STATE 12752),
    (sym_return_statement, STATE 11814), (sym_delete_statement, STATE 11814),
    (sym_raise_statement, STATE 11814), (sym_pass_statement, STATE 11814),
    (sym_break_statement, STATE 11814), (sym_continue_statement, STATE 11814),
    (sym_extension_definition, STATE 925), (sym_mlir_region, STATE 925),
    (sym_comptime_statement, STATE 925), (sym_if_statement, STATE 925),
    (sym_match_statement, STATE 925), (sym_for_statement, STATE 925),
    (sym_while_statement, STATE 925), (sym_try_statement, STATE 925),
    (sym_with_statement, STATE 925), (sym_function_definition, STATE 925),
    (sym_global_statement, STATE 11814), (sym_nonlocal_statement, STATE 11814),
    (sym_exec_statement, STATE 11814), (sym_type_alias_statement, STATE 11814),
    (sym_parameterized_alias_statement, STATE 11814), (sym_class_definition, STATE 925),
    (sym_trait_definition, STATE 925), (sym_decorated_definition, STATE 925),
    (sym_decorator, STATE 3670), (sym_block, STATE 6151), (sym_pattern, STATE 8086),
    (sym_tuple_pattern, STATE 8101), (sym_list_pattern, STATE 8101),
    (sym_list_splat_pattern, STATE 6819), (sym_as_pattern, STATE 7969),
    (sym_expression, STATE 9883), (sym_primary_expression, STATE 7326),
    (sym_comptime_expression, STATE 7017), (sym_transfer_expression, STATE 7017),
    (sym_not_operator, STATE 7969), (sym_boolean_operator, STATE 7969),
    (sym_binary_operator, STATE 7017), (sym_unary_operator, STATE 7017),
    (sym_comparison_operator, STATE 7969), (sym_lambda, STATE 7969),
    (sym_assignment, STATE 12425), (sym_augmented_assignment, STATE 12425),
    (sym_pattern_list, STATE 8578), (sym_yield, STATE 12425), (sym_attribute, STATE 6836),
    (sym_subscript, STATE 6838), (sym_call, STATE 6845), (sym_mlir_type, STATE 7017),
    (sym_list, STATE 7017), (sym_set, STATE 7017), (sym_tuple, STATE 7017),
    (sym_dictionary, STATE 7017), (sym_struct_literal, STATE 7017),
    (sym_list_comprehension, STATE 7017), (sym_dictionary_comprehension, STATE 7017),
    (sym_set_comprehension, STATE 7017), (sym_generator_expression, STATE 7017),
    (sym_parenthesized_expression, STATE 7017), (sym_conditional_expression, STATE 7969),
    (sym_concatenated_string, STATE 7017), (sym_string, STATE 6751), (sym_await, STATE 7017),
    (aux_sym_module_repeat1, STATE 925), (aux_sym_decorated_definition_repeat1, STATE 3670),
    (sym_identifier, ACTIONS 9), (anon_sym_import, ACTIONS 11), (anon_sym_from, ACTIONS 13),
    (anon_sym_LPAREN, ACTIONS 15), (anon_sym_STAR, ACTIONS 17), (anon_sym_print, ACTIONS 19),
    (anon_sym_comptime, ACTIONS 99), (anon_sym_assert, ACTIONS 23),
    (anon_sym___comptime_assert, ACTIONS 25), (anon_sym_return, ACTIONS 27),
    (anon_sym_del, ACTIONS 29), (anon_sym_raise, ACTIONS 31), (anon_sym_pass, ACTIONS 33),
    (anon_sym_break, ACTIONS 35), (anon_sym_continue, ACTIONS 37),
    (anon_sym___extension, ACTIONS 101), (anon_sym___mlir_region, ACTIONS 103),
    (anon_sym_if, ACTIONS 105), (anon_sym_match, ACTIONS 107), (anon_sym_async, ACTIONS 109),
    (anon_sym_for, ACTIONS 111), (anon_sym_while, ACTIONS 113), (anon_sym_try, ACTIONS 115),
    (anon_sym_with, ACTIONS 117), (anon_sym_def, ACTIONS 119), (anon_sym_fn, ACTIONS 119),
    (anon_sym_LBRACK, ACTIONS 59), (anon_sym_LBRACE, ACTIONS 61), (anon_sym_global, ACTIONS 63),
    (anon_sym_nonlocal, ACTIONS 65), (anon_sym_exec, ACTIONS 67), (anon_sym_type, ACTIONS 69),
    (anon_sym_class, ACTIONS 121), (anon_sym_struct, ACTIONS 121), (anon_sym_mut, ACTIONS 73),
    (anon_sym_out, ACTIONS 73), (anon_sym_trait, ACTIONS 123), (anon_sym_AT, ACTIONS 77),
    (anon_sym_DASH, ACTIONS 79), (anon_sym_PLUS, ACTIONS 79), (anon_sym_ref, ACTIONS 81),
    (anon_sym_var, ACTIONS 81), (anon_sym_not, ACTIONS 83), (anon_sym_TILDE, ACTIONS 79),
    (anon_sym_lambda, ACTIONS 85), (anon_sym_yield, ACTIONS 87), (sym_ellipsis, ACTIONS 89),
    (anon_sym___mlir_type, ACTIONS 91), (sym_integer, ACTIONS 93), (sym_float, ACTIONS 89),
    (anon_sym_await, ACTIONS 95), (sym_true, ACTIONS 93), (sym_false, ACTIONS 93),
    (sym_none, ACTIONS 93), (sym_comment, ACTIONS 3), (sym_line_continuation, ACTIONS 3),
    (sym__dedent, ACTIONS 129), (sym_string_start, ACTIONS 97)]"

definition parse_table_347 :: "(nat \<times> nat) list" where "parse_table_347 = [
    (sym__statement, STATE 925), (sym__simple_statements, STATE 925),
    (sym_import_statement, STATE 11814), (sym_future_import_statement, STATE 11814),
    (sym_import_from_statement, STATE 11814), (sym_print_statement, STATE 11814),
    (sym_assert_statement, STATE 11814), (sym_comptime_assert_statement, STATE 11814),
    (sym_expression_statement, STATE 11814), (sym_tuple_expression, STATE 12425),
    (sym_named_expression, STATE 7969), (sym__named_expression_lhs, STATE 12752),
    (sym_return_statement, STATE 11814), (sym_delete_statement, STATE 11814),
    (sym_raise_statement, STATE 11814), (sym_pass_statement, STATE 11814),
    (sym_break_statement, STATE 11814), (sym_continue_statement, STATE 11814),
    (sym_extension_definition, STATE 925), (sym_mlir_region, STATE 925),
    (sym_comptime_statement, STATE 925), (sym_if_statement, STATE 925),
    (sym_match_statement, STATE 925), (sym_for_statement, STATE 925),
    (sym_while_statement, STATE 925), (sym_try_statement, STATE 925),
    (sym_with_statement, STATE 925), (sym_function_definition, STATE 925),
    (sym_global_statement, STATE 11814), (sym_nonlocal_statement, STATE 11814),
    (sym_exec_statement, STATE 11814), (sym_type_alias_statement, STATE 11814),
    (sym_parameterized_alias_statement, STATE 11814), (sym_class_definition, STATE 925),
    (sym_trait_definition, STATE 925), (sym_decorated_definition, STATE 925),
    (sym_decorator, STATE 3670), (sym_block, STATE 6186), (sym_pattern, STATE 8086),
    (sym_tuple_pattern, STATE 8101), (sym_list_pattern, STATE 8101),
    (sym_list_splat_pattern, STATE 6819), (sym_as_pattern, STATE 7969),
    (sym_expression, STATE 9883), (sym_primary_expression, STATE 7326),
    (sym_comptime_expression, STATE 7017), (sym_transfer_expression, STATE 7017),
    (sym_not_operator, STATE 7969), (sym_boolean_operator, STATE 7969),
    (sym_binary_operator, STATE 7017), (sym_unary_operator, STATE 7017),
    (sym_comparison_operator, STATE 7969), (sym_lambda, STATE 7969),
    (sym_assignment, STATE 12425), (sym_augmented_assignment, STATE 12425),
    (sym_pattern_list, STATE 8578), (sym_yield, STATE 12425), (sym_attribute, STATE 6836),
    (sym_subscript, STATE 6838), (sym_call, STATE 6845), (sym_mlir_type, STATE 7017),
    (sym_list, STATE 7017), (sym_set, STATE 7017), (sym_tuple, STATE 7017),
    (sym_dictionary, STATE 7017), (sym_struct_literal, STATE 7017),
    (sym_list_comprehension, STATE 7017), (sym_dictionary_comprehension, STATE 7017),
    (sym_set_comprehension, STATE 7017), (sym_generator_expression, STATE 7017),
    (sym_parenthesized_expression, STATE 7017), (sym_conditional_expression, STATE 7969),
    (sym_concatenated_string, STATE 7017), (sym_string, STATE 6751), (sym_await, STATE 7017),
    (aux_sym_module_repeat1, STATE 925), (aux_sym_decorated_definition_repeat1, STATE 3670),
    (sym_identifier, ACTIONS 9), (anon_sym_import, ACTIONS 11), (anon_sym_from, ACTIONS 13),
    (anon_sym_LPAREN, ACTIONS 15), (anon_sym_STAR, ACTIONS 17), (anon_sym_print, ACTIONS 19),
    (anon_sym_comptime, ACTIONS 99), (anon_sym_assert, ACTIONS 23),
    (anon_sym___comptime_assert, ACTIONS 25), (anon_sym_return, ACTIONS 27),
    (anon_sym_del, ACTIONS 29), (anon_sym_raise, ACTIONS 31), (anon_sym_pass, ACTIONS 33),
    (anon_sym_break, ACTIONS 35), (anon_sym_continue, ACTIONS 37),
    (anon_sym___extension, ACTIONS 101), (anon_sym___mlir_region, ACTIONS 103),
    (anon_sym_if, ACTIONS 105), (anon_sym_match, ACTIONS 107), (anon_sym_async, ACTIONS 109),
    (anon_sym_for, ACTIONS 111), (anon_sym_while, ACTIONS 113), (anon_sym_try, ACTIONS 115),
    (anon_sym_with, ACTIONS 117), (anon_sym_def, ACTIONS 119), (anon_sym_fn, ACTIONS 119),
    (anon_sym_LBRACK, ACTIONS 59), (anon_sym_LBRACE, ACTIONS 61), (anon_sym_global, ACTIONS 63),
    (anon_sym_nonlocal, ACTIONS 65), (anon_sym_exec, ACTIONS 67), (anon_sym_type, ACTIONS 69),
    (anon_sym_class, ACTIONS 121), (anon_sym_struct, ACTIONS 121), (anon_sym_mut, ACTIONS 73),
    (anon_sym_out, ACTIONS 73), (anon_sym_trait, ACTIONS 123), (anon_sym_AT, ACTIONS 77),
    (anon_sym_DASH, ACTIONS 79), (anon_sym_PLUS, ACTIONS 79), (anon_sym_ref, ACTIONS 81),
    (anon_sym_var, ACTIONS 81), (anon_sym_not, ACTIONS 83), (anon_sym_TILDE, ACTIONS 79),
    (anon_sym_lambda, ACTIONS 85), (anon_sym_yield, ACTIONS 87), (sym_ellipsis, ACTIONS 89),
    (anon_sym___mlir_type, ACTIONS 91), (sym_integer, ACTIONS 93), (sym_float, ACTIONS 89),
    (anon_sym_await, ACTIONS 95), (sym_true, ACTIONS 93), (sym_false, ACTIONS 93),
    (sym_none, ACTIONS 93), (sym_comment, ACTIONS 3), (sym_line_continuation, ACTIONS 3),
    (sym__dedent, ACTIONS 129), (sym_string_start, ACTIONS 97)]"

definition parse_table_348 :: "(nat \<times> nat) list" where "parse_table_348 = [
    (sym__statement, STATE 925), (sym__simple_statements, STATE 925),
    (sym_import_statement, STATE 11814), (sym_future_import_statement, STATE 11814),
    (sym_import_from_statement, STATE 11814), (sym_print_statement, STATE 11814),
    (sym_assert_statement, STATE 11814), (sym_comptime_assert_statement, STATE 11814),
    (sym_expression_statement, STATE 11814), (sym_tuple_expression, STATE 12425),
    (sym_named_expression, STATE 7969), (sym__named_expression_lhs, STATE 12752),
    (sym_return_statement, STATE 11814), (sym_delete_statement, STATE 11814),
    (sym_raise_statement, STATE 11814), (sym_pass_statement, STATE 11814),
    (sym_break_statement, STATE 11814), (sym_continue_statement, STATE 11814),
    (sym_extension_definition, STATE 925), (sym_mlir_region, STATE 925),
    (sym_comptime_statement, STATE 925), (sym_if_statement, STATE 925),
    (sym_match_statement, STATE 925), (sym_for_statement, STATE 925),
    (sym_while_statement, STATE 925), (sym_try_statement, STATE 925),
    (sym_with_statement, STATE 925), (sym_function_definition, STATE 925),
    (sym_global_statement, STATE 11814), (sym_nonlocal_statement, STATE 11814),
    (sym_exec_statement, STATE 11814), (sym_type_alias_statement, STATE 11814),
    (sym_parameterized_alias_statement, STATE 11814), (sym_class_definition, STATE 925),
    (sym_trait_definition, STATE 925), (sym_decorated_definition, STATE 925),
    (sym_decorator, STATE 3670), (sym_block, STATE 6198), (sym_pattern, STATE 8086),
    (sym_tuple_pattern, STATE 8101), (sym_list_pattern, STATE 8101),
    (sym_list_splat_pattern, STATE 6819), (sym_as_pattern, STATE 7969),
    (sym_expression, STATE 9883), (sym_primary_expression, STATE 7326),
    (sym_comptime_expression, STATE 7017), (sym_transfer_expression, STATE 7017),
    (sym_not_operator, STATE 7969), (sym_boolean_operator, STATE 7969),
    (sym_binary_operator, STATE 7017), (sym_unary_operator, STATE 7017),
    (sym_comparison_operator, STATE 7969), (sym_lambda, STATE 7969),
    (sym_assignment, STATE 12425), (sym_augmented_assignment, STATE 12425),
    (sym_pattern_list, STATE 8578), (sym_yield, STATE 12425), (sym_attribute, STATE 6836),
    (sym_subscript, STATE 6838), (sym_call, STATE 6845), (sym_mlir_type, STATE 7017),
    (sym_list, STATE 7017), (sym_set, STATE 7017), (sym_tuple, STATE 7017),
    (sym_dictionary, STATE 7017), (sym_struct_literal, STATE 7017),
    (sym_list_comprehension, STATE 7017), (sym_dictionary_comprehension, STATE 7017),
    (sym_set_comprehension, STATE 7017), (sym_generator_expression, STATE 7017),
    (sym_parenthesized_expression, STATE 7017), (sym_conditional_expression, STATE 7969),
    (sym_concatenated_string, STATE 7017), (sym_string, STATE 6751), (sym_await, STATE 7017),
    (aux_sym_module_repeat1, STATE 925), (aux_sym_decorated_definition_repeat1, STATE 3670),
    (sym_identifier, ACTIONS 9), (anon_sym_import, ACTIONS 11), (anon_sym_from, ACTIONS 13),
    (anon_sym_LPAREN, ACTIONS 15), (anon_sym_STAR, ACTIONS 17), (anon_sym_print, ACTIONS 19),
    (anon_sym_comptime, ACTIONS 99), (anon_sym_assert, ACTIONS 23),
    (anon_sym___comptime_assert, ACTIONS 25), (anon_sym_return, ACTIONS 27),
    (anon_sym_del, ACTIONS 29), (anon_sym_raise, ACTIONS 31), (anon_sym_pass, ACTIONS 33),
    (anon_sym_break, ACTIONS 35), (anon_sym_continue, ACTIONS 37),
    (anon_sym___extension, ACTIONS 101), (anon_sym___mlir_region, ACTIONS 103),
    (anon_sym_if, ACTIONS 105), (anon_sym_match, ACTIONS 107), (anon_sym_async, ACTIONS 109),
    (anon_sym_for, ACTIONS 111), (anon_sym_while, ACTIONS 113), (anon_sym_try, ACTIONS 115),
    (anon_sym_with, ACTIONS 117), (anon_sym_def, ACTIONS 119), (anon_sym_fn, ACTIONS 119),
    (anon_sym_LBRACK, ACTIONS 59), (anon_sym_LBRACE, ACTIONS 61), (anon_sym_global, ACTIONS 63),
    (anon_sym_nonlocal, ACTIONS 65), (anon_sym_exec, ACTIONS 67), (anon_sym_type, ACTIONS 69),
    (anon_sym_class, ACTIONS 121), (anon_sym_struct, ACTIONS 121), (anon_sym_mut, ACTIONS 73),
    (anon_sym_out, ACTIONS 73), (anon_sym_trait, ACTIONS 123), (anon_sym_AT, ACTIONS 77),
    (anon_sym_DASH, ACTIONS 79), (anon_sym_PLUS, ACTIONS 79), (anon_sym_ref, ACTIONS 81),
    (anon_sym_var, ACTIONS 81), (anon_sym_not, ACTIONS 83), (anon_sym_TILDE, ACTIONS 79),
    (anon_sym_lambda, ACTIONS 85), (anon_sym_yield, ACTIONS 87), (sym_ellipsis, ACTIONS 89),
    (anon_sym___mlir_type, ACTIONS 91), (sym_integer, ACTIONS 93), (sym_float, ACTIONS 89),
    (anon_sym_await, ACTIONS 95), (sym_true, ACTIONS 93), (sym_false, ACTIONS 93),
    (sym_none, ACTIONS 93), (sym_comment, ACTIONS 3), (sym_line_continuation, ACTIONS 3),
    (sym__dedent, ACTIONS 129), (sym_string_start, ACTIONS 97)]"

definition parse_table_349 :: "(nat \<times> nat) list" where "parse_table_349 = [
    (sym__statement, STATE 925), (sym__simple_statements, STATE 925),
    (sym_import_statement, STATE 11814), (sym_future_import_statement, STATE 11814),
    (sym_import_from_statement, STATE 11814), (sym_print_statement, STATE 11814),
    (sym_assert_statement, STATE 11814), (sym_comptime_assert_statement, STATE 11814),
    (sym_expression_statement, STATE 11814), (sym_tuple_expression, STATE 12425),
    (sym_named_expression, STATE 7969), (sym__named_expression_lhs, STATE 12752),
    (sym_return_statement, STATE 11814), (sym_delete_statement, STATE 11814),
    (sym_raise_statement, STATE 11814), (sym_pass_statement, STATE 11814),
    (sym_break_statement, STATE 11814), (sym_continue_statement, STATE 11814),
    (sym_extension_definition, STATE 925), (sym_mlir_region, STATE 925),
    (sym_comptime_statement, STATE 925), (sym_if_statement, STATE 925),
    (sym_match_statement, STATE 925), (sym_for_statement, STATE 925),
    (sym_while_statement, STATE 925), (sym_try_statement, STATE 925),
    (sym_with_statement, STATE 925), (sym_function_definition, STATE 925),
    (sym_global_statement, STATE 11814), (sym_nonlocal_statement, STATE 11814),
    (sym_exec_statement, STATE 11814), (sym_type_alias_statement, STATE 11814),
    (sym_parameterized_alias_statement, STATE 11814), (sym_class_definition, STATE 925),
    (sym_trait_definition, STATE 925), (sym_decorated_definition, STATE 925),
    (sym_decorator, STATE 3670), (sym_block, STATE 6200), (sym_pattern, STATE 8086),
    (sym_tuple_pattern, STATE 8101), (sym_list_pattern, STATE 8101),
    (sym_list_splat_pattern, STATE 6819), (sym_as_pattern, STATE 7969),
    (sym_expression, STATE 9883), (sym_primary_expression, STATE 7326),
    (sym_comptime_expression, STATE 7017), (sym_transfer_expression, STATE 7017),
    (sym_not_operator, STATE 7969), (sym_boolean_operator, STATE 7969),
    (sym_binary_operator, STATE 7017), (sym_unary_operator, STATE 7017),
    (sym_comparison_operator, STATE 7969), (sym_lambda, STATE 7969),
    (sym_assignment, STATE 12425), (sym_augmented_assignment, STATE 12425),
    (sym_pattern_list, STATE 8578), (sym_yield, STATE 12425), (sym_attribute, STATE 6836),
    (sym_subscript, STATE 6838), (sym_call, STATE 6845), (sym_mlir_type, STATE 7017),
    (sym_list, STATE 7017), (sym_set, STATE 7017), (sym_tuple, STATE 7017),
    (sym_dictionary, STATE 7017), (sym_struct_literal, STATE 7017),
    (sym_list_comprehension, STATE 7017), (sym_dictionary_comprehension, STATE 7017),
    (sym_set_comprehension, STATE 7017), (sym_generator_expression, STATE 7017),
    (sym_parenthesized_expression, STATE 7017), (sym_conditional_expression, STATE 7969),
    (sym_concatenated_string, STATE 7017), (sym_string, STATE 6751), (sym_await, STATE 7017),
    (aux_sym_module_repeat1, STATE 925), (aux_sym_decorated_definition_repeat1, STATE 3670),
    (sym_identifier, ACTIONS 9), (anon_sym_import, ACTIONS 11), (anon_sym_from, ACTIONS 13),
    (anon_sym_LPAREN, ACTIONS 15), (anon_sym_STAR, ACTIONS 17), (anon_sym_print, ACTIONS 19),
    (anon_sym_comptime, ACTIONS 99), (anon_sym_assert, ACTIONS 23),
    (anon_sym___comptime_assert, ACTIONS 25), (anon_sym_return, ACTIONS 27),
    (anon_sym_del, ACTIONS 29), (anon_sym_raise, ACTIONS 31), (anon_sym_pass, ACTIONS 33),
    (anon_sym_break, ACTIONS 35), (anon_sym_continue, ACTIONS 37),
    (anon_sym___extension, ACTIONS 101), (anon_sym___mlir_region, ACTIONS 103),
    (anon_sym_if, ACTIONS 105), (anon_sym_match, ACTIONS 107), (anon_sym_async, ACTIONS 109),
    (anon_sym_for, ACTIONS 111), (anon_sym_while, ACTIONS 113), (anon_sym_try, ACTIONS 115),
    (anon_sym_with, ACTIONS 117), (anon_sym_def, ACTIONS 119), (anon_sym_fn, ACTIONS 119),
    (anon_sym_LBRACK, ACTIONS 59), (anon_sym_LBRACE, ACTIONS 61), (anon_sym_global, ACTIONS 63),
    (anon_sym_nonlocal, ACTIONS 65), (anon_sym_exec, ACTIONS 67), (anon_sym_type, ACTIONS 69),
    (anon_sym_class, ACTIONS 121), (anon_sym_struct, ACTIONS 121), (anon_sym_mut, ACTIONS 73),
    (anon_sym_out, ACTIONS 73), (anon_sym_trait, ACTIONS 123), (anon_sym_AT, ACTIONS 77),
    (anon_sym_DASH, ACTIONS 79), (anon_sym_PLUS, ACTIONS 79), (anon_sym_ref, ACTIONS 81),
    (anon_sym_var, ACTIONS 81), (anon_sym_not, ACTIONS 83), (anon_sym_TILDE, ACTIONS 79),
    (anon_sym_lambda, ACTIONS 85), (anon_sym_yield, ACTIONS 87), (sym_ellipsis, ACTIONS 89),
    (anon_sym___mlir_type, ACTIONS 91), (sym_integer, ACTIONS 93), (sym_float, ACTIONS 89),
    (anon_sym_await, ACTIONS 95), (sym_true, ACTIONS 93), (sym_false, ACTIONS 93),
    (sym_none, ACTIONS 93), (sym_comment, ACTIONS 3), (sym_line_continuation, ACTIONS 3),
    (sym__dedent, ACTIONS 129), (sym_string_start, ACTIONS 97)]"

definition parse_table_350 :: "(nat \<times> nat) list" where "parse_table_350 = [
    (sym__statement, STATE 925), (sym__simple_statements, STATE 925),
    (sym_import_statement, STATE 11814), (sym_future_import_statement, STATE 11814),
    (sym_import_from_statement, STATE 11814), (sym_print_statement, STATE 11814),
    (sym_assert_statement, STATE 11814), (sym_comptime_assert_statement, STATE 11814),
    (sym_expression_statement, STATE 11814), (sym_tuple_expression, STATE 12425),
    (sym_named_expression, STATE 7969), (sym__named_expression_lhs, STATE 12752),
    (sym_return_statement, STATE 11814), (sym_delete_statement, STATE 11814),
    (sym_raise_statement, STATE 11814), (sym_pass_statement, STATE 11814),
    (sym_break_statement, STATE 11814), (sym_continue_statement, STATE 11814),
    (sym_extension_definition, STATE 925), (sym_mlir_region, STATE 925),
    (sym_comptime_statement, STATE 925), (sym_if_statement, STATE 925),
    (sym_match_statement, STATE 925), (sym_for_statement, STATE 925),
    (sym_while_statement, STATE 925), (sym_try_statement, STATE 925),
    (sym_with_statement, STATE 925), (sym_function_definition, STATE 925),
    (sym_global_statement, STATE 11814), (sym_nonlocal_statement, STATE 11814),
    (sym_exec_statement, STATE 11814), (sym_type_alias_statement, STATE 11814),
    (sym_parameterized_alias_statement, STATE 11814), (sym_class_definition, STATE 925),
    (sym_trait_definition, STATE 925), (sym_decorated_definition, STATE 925),
    (sym_decorator, STATE 3670), (sym_block, STATE 6205), (sym_pattern, STATE 8086),
    (sym_tuple_pattern, STATE 8101), (sym_list_pattern, STATE 8101),
    (sym_list_splat_pattern, STATE 6819), (sym_as_pattern, STATE 7969),
    (sym_expression, STATE 9883), (sym_primary_expression, STATE 7326),
    (sym_comptime_expression, STATE 7017), (sym_transfer_expression, STATE 7017),
    (sym_not_operator, STATE 7969), (sym_boolean_operator, STATE 7969),
    (sym_binary_operator, STATE 7017), (sym_unary_operator, STATE 7017),
    (sym_comparison_operator, STATE 7969), (sym_lambda, STATE 7969),
    (sym_assignment, STATE 12425), (sym_augmented_assignment, STATE 12425),
    (sym_pattern_list, STATE 8578), (sym_yield, STATE 12425), (sym_attribute, STATE 6836),
    (sym_subscript, STATE 6838), (sym_call, STATE 6845), (sym_mlir_type, STATE 7017),
    (sym_list, STATE 7017), (sym_set, STATE 7017), (sym_tuple, STATE 7017),
    (sym_dictionary, STATE 7017), (sym_struct_literal, STATE 7017),
    (sym_list_comprehension, STATE 7017), (sym_dictionary_comprehension, STATE 7017),
    (sym_set_comprehension, STATE 7017), (sym_generator_expression, STATE 7017),
    (sym_parenthesized_expression, STATE 7017), (sym_conditional_expression, STATE 7969),
    (sym_concatenated_string, STATE 7017), (sym_string, STATE 6751), (sym_await, STATE 7017),
    (aux_sym_module_repeat1, STATE 925), (aux_sym_decorated_definition_repeat1, STATE 3670),
    (sym_identifier, ACTIONS 9), (anon_sym_import, ACTIONS 11), (anon_sym_from, ACTIONS 13),
    (anon_sym_LPAREN, ACTIONS 15), (anon_sym_STAR, ACTIONS 17), (anon_sym_print, ACTIONS 19),
    (anon_sym_comptime, ACTIONS 99), (anon_sym_assert, ACTIONS 23),
    (anon_sym___comptime_assert, ACTIONS 25), (anon_sym_return, ACTIONS 27),
    (anon_sym_del, ACTIONS 29), (anon_sym_raise, ACTIONS 31), (anon_sym_pass, ACTIONS 33),
    (anon_sym_break, ACTIONS 35), (anon_sym_continue, ACTIONS 37),
    (anon_sym___extension, ACTIONS 101), (anon_sym___mlir_region, ACTIONS 103),
    (anon_sym_if, ACTIONS 105), (anon_sym_match, ACTIONS 107), (anon_sym_async, ACTIONS 109),
    (anon_sym_for, ACTIONS 111), (anon_sym_while, ACTIONS 113), (anon_sym_try, ACTIONS 115),
    (anon_sym_with, ACTIONS 117), (anon_sym_def, ACTIONS 119), (anon_sym_fn, ACTIONS 119),
    (anon_sym_LBRACK, ACTIONS 59), (anon_sym_LBRACE, ACTIONS 61), (anon_sym_global, ACTIONS 63),
    (anon_sym_nonlocal, ACTIONS 65), (anon_sym_exec, ACTIONS 67), (anon_sym_type, ACTIONS 69),
    (anon_sym_class, ACTIONS 121), (anon_sym_struct, ACTIONS 121), (anon_sym_mut, ACTIONS 73),
    (anon_sym_out, ACTIONS 73), (anon_sym_trait, ACTIONS 123), (anon_sym_AT, ACTIONS 77),
    (anon_sym_DASH, ACTIONS 79), (anon_sym_PLUS, ACTIONS 79), (anon_sym_ref, ACTIONS 81),
    (anon_sym_var, ACTIONS 81), (anon_sym_not, ACTIONS 83), (anon_sym_TILDE, ACTIONS 79),
    (anon_sym_lambda, ACTIONS 85), (anon_sym_yield, ACTIONS 87), (sym_ellipsis, ACTIONS 89),
    (anon_sym___mlir_type, ACTIONS 91), (sym_integer, ACTIONS 93), (sym_float, ACTIONS 89),
    (anon_sym_await, ACTIONS 95), (sym_true, ACTIONS 93), (sym_false, ACTIONS 93),
    (sym_none, ACTIONS 93), (sym_comment, ACTIONS 3), (sym_line_continuation, ACTIONS 3),
    (sym__dedent, ACTIONS 129), (sym_string_start, ACTIONS 97)]"

definition parse_table_351 :: "(nat \<times> nat) list" where "parse_table_351 = [
    (sym__statement, STATE 925), (sym__simple_statements, STATE 925),
    (sym_import_statement, STATE 11814), (sym_future_import_statement, STATE 11814),
    (sym_import_from_statement, STATE 11814), (sym_print_statement, STATE 11814),
    (sym_assert_statement, STATE 11814), (sym_comptime_assert_statement, STATE 11814),
    (sym_expression_statement, STATE 11814), (sym_tuple_expression, STATE 12425),
    (sym_named_expression, STATE 7969), (sym__named_expression_lhs, STATE 12752),
    (sym_return_statement, STATE 11814), (sym_delete_statement, STATE 11814),
    (sym_raise_statement, STATE 11814), (sym_pass_statement, STATE 11814),
    (sym_break_statement, STATE 11814), (sym_continue_statement, STATE 11814),
    (sym_extension_definition, STATE 925), (sym_mlir_region, STATE 925),
    (sym_comptime_statement, STATE 925), (sym_if_statement, STATE 925),
    (sym_match_statement, STATE 925), (sym_for_statement, STATE 925),
    (sym_while_statement, STATE 925), (sym_try_statement, STATE 925),
    (sym_with_statement, STATE 925), (sym_function_definition, STATE 925),
    (sym_global_statement, STATE 11814), (sym_nonlocal_statement, STATE 11814),
    (sym_exec_statement, STATE 11814), (sym_type_alias_statement, STATE 11814),
    (sym_parameterized_alias_statement, STATE 11814), (sym_class_definition, STATE 925),
    (sym_trait_definition, STATE 925), (sym_decorated_definition, STATE 925),
    (sym_decorator, STATE 3670), (sym_block, STATE 6215), (sym_pattern, STATE 8086),
    (sym_tuple_pattern, STATE 8101), (sym_list_pattern, STATE 8101),
    (sym_list_splat_pattern, STATE 6819), (sym_as_pattern, STATE 7969),
    (sym_expression, STATE 9883), (sym_primary_expression, STATE 7326),
    (sym_comptime_expression, STATE 7017), (sym_transfer_expression, STATE 7017),
    (sym_not_operator, STATE 7969), (sym_boolean_operator, STATE 7969),
    (sym_binary_operator, STATE 7017), (sym_unary_operator, STATE 7017),
    (sym_comparison_operator, STATE 7969), (sym_lambda, STATE 7969),
    (sym_assignment, STATE 12425), (sym_augmented_assignment, STATE 12425),
    (sym_pattern_list, STATE 8578), (sym_yield, STATE 12425), (sym_attribute, STATE 6836),
    (sym_subscript, STATE 6838), (sym_call, STATE 6845), (sym_mlir_type, STATE 7017),
    (sym_list, STATE 7017), (sym_set, STATE 7017), (sym_tuple, STATE 7017),
    (sym_dictionary, STATE 7017), (sym_struct_literal, STATE 7017),
    (sym_list_comprehension, STATE 7017), (sym_dictionary_comprehension, STATE 7017),
    (sym_set_comprehension, STATE 7017), (sym_generator_expression, STATE 7017),
    (sym_parenthesized_expression, STATE 7017), (sym_conditional_expression, STATE 7969),
    (sym_concatenated_string, STATE 7017), (sym_string, STATE 6751), (sym_await, STATE 7017),
    (aux_sym_module_repeat1, STATE 925), (aux_sym_decorated_definition_repeat1, STATE 3670),
    (sym_identifier, ACTIONS 9), (anon_sym_import, ACTIONS 11), (anon_sym_from, ACTIONS 13),
    (anon_sym_LPAREN, ACTIONS 15), (anon_sym_STAR, ACTIONS 17), (anon_sym_print, ACTIONS 19),
    (anon_sym_comptime, ACTIONS 99), (anon_sym_assert, ACTIONS 23),
    (anon_sym___comptime_assert, ACTIONS 25), (anon_sym_return, ACTIONS 27),
    (anon_sym_del, ACTIONS 29), (anon_sym_raise, ACTIONS 31), (anon_sym_pass, ACTIONS 33),
    (anon_sym_break, ACTIONS 35), (anon_sym_continue, ACTIONS 37),
    (anon_sym___extension, ACTIONS 101), (anon_sym___mlir_region, ACTIONS 103),
    (anon_sym_if, ACTIONS 105), (anon_sym_match, ACTIONS 107), (anon_sym_async, ACTIONS 109),
    (anon_sym_for, ACTIONS 111), (anon_sym_while, ACTIONS 113), (anon_sym_try, ACTIONS 115),
    (anon_sym_with, ACTIONS 117), (anon_sym_def, ACTIONS 119), (anon_sym_fn, ACTIONS 119),
    (anon_sym_LBRACK, ACTIONS 59), (anon_sym_LBRACE, ACTIONS 61), (anon_sym_global, ACTIONS 63),
    (anon_sym_nonlocal, ACTIONS 65), (anon_sym_exec, ACTIONS 67), (anon_sym_type, ACTIONS 69),
    (anon_sym_class, ACTIONS 121), (anon_sym_struct, ACTIONS 121), (anon_sym_mut, ACTIONS 73),
    (anon_sym_out, ACTIONS 73), (anon_sym_trait, ACTIONS 123), (anon_sym_AT, ACTIONS 77),
    (anon_sym_DASH, ACTIONS 79), (anon_sym_PLUS, ACTIONS 79), (anon_sym_ref, ACTIONS 81),
    (anon_sym_var, ACTIONS 81), (anon_sym_not, ACTIONS 83), (anon_sym_TILDE, ACTIONS 79),
    (anon_sym_lambda, ACTIONS 85), (anon_sym_yield, ACTIONS 87), (sym_ellipsis, ACTIONS 89),
    (anon_sym___mlir_type, ACTIONS 91), (sym_integer, ACTIONS 93), (sym_float, ACTIONS 89),
    (anon_sym_await, ACTIONS 95), (sym_true, ACTIONS 93), (sym_false, ACTIONS 93),
    (sym_none, ACTIONS 93), (sym_comment, ACTIONS 3), (sym_line_continuation, ACTIONS 3),
    (sym__dedent, ACTIONS 129), (sym_string_start, ACTIONS 97)]"

definition parse_table_352 :: "(nat \<times> nat) list" where "parse_table_352 = [
    (sym__statement, STATE 925), (sym__simple_statements, STATE 925),
    (sym_import_statement, STATE 11814), (sym_future_import_statement, STATE 11814),
    (sym_import_from_statement, STATE 11814), (sym_print_statement, STATE 11814),
    (sym_assert_statement, STATE 11814), (sym_comptime_assert_statement, STATE 11814),
    (sym_expression_statement, STATE 11814), (sym_tuple_expression, STATE 12425),
    (sym_named_expression, STATE 7969), (sym__named_expression_lhs, STATE 12752),
    (sym_return_statement, STATE 11814), (sym_delete_statement, STATE 11814),
    (sym_raise_statement, STATE 11814), (sym_pass_statement, STATE 11814),
    (sym_break_statement, STATE 11814), (sym_continue_statement, STATE 11814),
    (sym_extension_definition, STATE 925), (sym_mlir_region, STATE 925),
    (sym_comptime_statement, STATE 925), (sym_if_statement, STATE 925),
    (sym_match_statement, STATE 925), (sym_for_statement, STATE 925),
    (sym_while_statement, STATE 925), (sym_try_statement, STATE 925),
    (sym_with_statement, STATE 925), (sym_function_definition, STATE 925),
    (sym_global_statement, STATE 11814), (sym_nonlocal_statement, STATE 11814),
    (sym_exec_statement, STATE 11814), (sym_type_alias_statement, STATE 11814),
    (sym_parameterized_alias_statement, STATE 11814), (sym_class_definition, STATE 925),
    (sym_trait_definition, STATE 925), (sym_decorated_definition, STATE 925),
    (sym_decorator, STATE 3670), (sym_block, STATE 6229), (sym_pattern, STATE 8086),
    (sym_tuple_pattern, STATE 8101), (sym_list_pattern, STATE 8101),
    (sym_list_splat_pattern, STATE 6819), (sym_as_pattern, STATE 7969),
    (sym_expression, STATE 9883), (sym_primary_expression, STATE 7326),
    (sym_comptime_expression, STATE 7017), (sym_transfer_expression, STATE 7017),
    (sym_not_operator, STATE 7969), (sym_boolean_operator, STATE 7969),
    (sym_binary_operator, STATE 7017), (sym_unary_operator, STATE 7017),
    (sym_comparison_operator, STATE 7969), (sym_lambda, STATE 7969),
    (sym_assignment, STATE 12425), (sym_augmented_assignment, STATE 12425),
    (sym_pattern_list, STATE 8578), (sym_yield, STATE 12425), (sym_attribute, STATE 6836),
    (sym_subscript, STATE 6838), (sym_call, STATE 6845), (sym_mlir_type, STATE 7017),
    (sym_list, STATE 7017), (sym_set, STATE 7017), (sym_tuple, STATE 7017),
    (sym_dictionary, STATE 7017), (sym_struct_literal, STATE 7017),
    (sym_list_comprehension, STATE 7017), (sym_dictionary_comprehension, STATE 7017),
    (sym_set_comprehension, STATE 7017), (sym_generator_expression, STATE 7017),
    (sym_parenthesized_expression, STATE 7017), (sym_conditional_expression, STATE 7969),
    (sym_concatenated_string, STATE 7017), (sym_string, STATE 6751), (sym_await, STATE 7017),
    (aux_sym_module_repeat1, STATE 925), (aux_sym_decorated_definition_repeat1, STATE 3670),
    (sym_identifier, ACTIONS 9), (anon_sym_import, ACTIONS 11), (anon_sym_from, ACTIONS 13),
    (anon_sym_LPAREN, ACTIONS 15), (anon_sym_STAR, ACTIONS 17), (anon_sym_print, ACTIONS 19),
    (anon_sym_comptime, ACTIONS 99), (anon_sym_assert, ACTIONS 23),
    (anon_sym___comptime_assert, ACTIONS 25), (anon_sym_return, ACTIONS 27),
    (anon_sym_del, ACTIONS 29), (anon_sym_raise, ACTIONS 31), (anon_sym_pass, ACTIONS 33),
    (anon_sym_break, ACTIONS 35), (anon_sym_continue, ACTIONS 37),
    (anon_sym___extension, ACTIONS 101), (anon_sym___mlir_region, ACTIONS 103),
    (anon_sym_if, ACTIONS 105), (anon_sym_match, ACTIONS 107), (anon_sym_async, ACTIONS 109),
    (anon_sym_for, ACTIONS 111), (anon_sym_while, ACTIONS 113), (anon_sym_try, ACTIONS 115),
    (anon_sym_with, ACTIONS 117), (anon_sym_def, ACTIONS 119), (anon_sym_fn, ACTIONS 119),
    (anon_sym_LBRACK, ACTIONS 59), (anon_sym_LBRACE, ACTIONS 61), (anon_sym_global, ACTIONS 63),
    (anon_sym_nonlocal, ACTIONS 65), (anon_sym_exec, ACTIONS 67), (anon_sym_type, ACTIONS 69),
    (anon_sym_class, ACTIONS 121), (anon_sym_struct, ACTIONS 121), (anon_sym_mut, ACTIONS 73),
    (anon_sym_out, ACTIONS 73), (anon_sym_trait, ACTIONS 123), (anon_sym_AT, ACTIONS 77),
    (anon_sym_DASH, ACTIONS 79), (anon_sym_PLUS, ACTIONS 79), (anon_sym_ref, ACTIONS 81),
    (anon_sym_var, ACTIONS 81), (anon_sym_not, ACTIONS 83), (anon_sym_TILDE, ACTIONS 79),
    (anon_sym_lambda, ACTIONS 85), (anon_sym_yield, ACTIONS 87), (sym_ellipsis, ACTIONS 89),
    (anon_sym___mlir_type, ACTIONS 91), (sym_integer, ACTIONS 93), (sym_float, ACTIONS 89),
    (anon_sym_await, ACTIONS 95), (sym_true, ACTIONS 93), (sym_false, ACTIONS 93),
    (sym_none, ACTIONS 93), (sym_comment, ACTIONS 3), (sym_line_continuation, ACTIONS 3),
    (sym__dedent, ACTIONS 129), (sym_string_start, ACTIONS 97)]"

definition parse_table_353 :: "(nat \<times> nat) list" where "parse_table_353 = [
    (sym__statement, STATE 925), (sym__simple_statements, STATE 925),
    (sym_import_statement, STATE 11814), (sym_future_import_statement, STATE 11814),
    (sym_import_from_statement, STATE 11814), (sym_print_statement, STATE 11814),
    (sym_assert_statement, STATE 11814), (sym_comptime_assert_statement, STATE 11814),
    (sym_expression_statement, STATE 11814), (sym_tuple_expression, STATE 12425),
    (sym_named_expression, STATE 7969), (sym__named_expression_lhs, STATE 12752),
    (sym_return_statement, STATE 11814), (sym_delete_statement, STATE 11814),
    (sym_raise_statement, STATE 11814), (sym_pass_statement, STATE 11814),
    (sym_break_statement, STATE 11814), (sym_continue_statement, STATE 11814),
    (sym_extension_definition, STATE 925), (sym_mlir_region, STATE 925),
    (sym_comptime_statement, STATE 925), (sym_if_statement, STATE 925),
    (sym_match_statement, STATE 925), (sym_for_statement, STATE 925),
    (sym_while_statement, STATE 925), (sym_try_statement, STATE 925),
    (sym_with_statement, STATE 925), (sym_function_definition, STATE 925),
    (sym_global_statement, STATE 11814), (sym_nonlocal_statement, STATE 11814),
    (sym_exec_statement, STATE 11814), (sym_type_alias_statement, STATE 11814),
    (sym_parameterized_alias_statement, STATE 11814), (sym_class_definition, STATE 925),
    (sym_trait_definition, STATE 925), (sym_decorated_definition, STATE 925),
    (sym_decorator, STATE 3670), (sym_block, STATE 6231), (sym_pattern, STATE 8086),
    (sym_tuple_pattern, STATE 8101), (sym_list_pattern, STATE 8101),
    (sym_list_splat_pattern, STATE 6819), (sym_as_pattern, STATE 7969),
    (sym_expression, STATE 9883), (sym_primary_expression, STATE 7326),
    (sym_comptime_expression, STATE 7017), (sym_transfer_expression, STATE 7017),
    (sym_not_operator, STATE 7969), (sym_boolean_operator, STATE 7969),
    (sym_binary_operator, STATE 7017), (sym_unary_operator, STATE 7017),
    (sym_comparison_operator, STATE 7969), (sym_lambda, STATE 7969),
    (sym_assignment, STATE 12425), (sym_augmented_assignment, STATE 12425),
    (sym_pattern_list, STATE 8578), (sym_yield, STATE 12425), (sym_attribute, STATE 6836),
    (sym_subscript, STATE 6838), (sym_call, STATE 6845), (sym_mlir_type, STATE 7017),
    (sym_list, STATE 7017), (sym_set, STATE 7017), (sym_tuple, STATE 7017),
    (sym_dictionary, STATE 7017), (sym_struct_literal, STATE 7017),
    (sym_list_comprehension, STATE 7017), (sym_dictionary_comprehension, STATE 7017),
    (sym_set_comprehension, STATE 7017), (sym_generator_expression, STATE 7017),
    (sym_parenthesized_expression, STATE 7017), (sym_conditional_expression, STATE 7969),
    (sym_concatenated_string, STATE 7017), (sym_string, STATE 6751), (sym_await, STATE 7017),
    (aux_sym_module_repeat1, STATE 925), (aux_sym_decorated_definition_repeat1, STATE 3670),
    (sym_identifier, ACTIONS 9), (anon_sym_import, ACTIONS 11), (anon_sym_from, ACTIONS 13),
    (anon_sym_LPAREN, ACTIONS 15), (anon_sym_STAR, ACTIONS 17), (anon_sym_print, ACTIONS 19),
    (anon_sym_comptime, ACTIONS 99), (anon_sym_assert, ACTIONS 23),
    (anon_sym___comptime_assert, ACTIONS 25), (anon_sym_return, ACTIONS 27),
    (anon_sym_del, ACTIONS 29), (anon_sym_raise, ACTIONS 31), (anon_sym_pass, ACTIONS 33),
    (anon_sym_break, ACTIONS 35), (anon_sym_continue, ACTIONS 37),
    (anon_sym___extension, ACTIONS 101), (anon_sym___mlir_region, ACTIONS 103),
    (anon_sym_if, ACTIONS 105), (anon_sym_match, ACTIONS 107), (anon_sym_async, ACTIONS 109),
    (anon_sym_for, ACTIONS 111), (anon_sym_while, ACTIONS 113), (anon_sym_try, ACTIONS 115),
    (anon_sym_with, ACTIONS 117), (anon_sym_def, ACTIONS 119), (anon_sym_fn, ACTIONS 119),
    (anon_sym_LBRACK, ACTIONS 59), (anon_sym_LBRACE, ACTIONS 61), (anon_sym_global, ACTIONS 63),
    (anon_sym_nonlocal, ACTIONS 65), (anon_sym_exec, ACTIONS 67), (anon_sym_type, ACTIONS 69),
    (anon_sym_class, ACTIONS 121), (anon_sym_struct, ACTIONS 121), (anon_sym_mut, ACTIONS 73),
    (anon_sym_out, ACTIONS 73), (anon_sym_trait, ACTIONS 123), (anon_sym_AT, ACTIONS 77),
    (anon_sym_DASH, ACTIONS 79), (anon_sym_PLUS, ACTIONS 79), (anon_sym_ref, ACTIONS 81),
    (anon_sym_var, ACTIONS 81), (anon_sym_not, ACTIONS 83), (anon_sym_TILDE, ACTIONS 79),
    (anon_sym_lambda, ACTIONS 85), (anon_sym_yield, ACTIONS 87), (sym_ellipsis, ACTIONS 89),
    (anon_sym___mlir_type, ACTIONS 91), (sym_integer, ACTIONS 93), (sym_float, ACTIONS 89),
    (anon_sym_await, ACTIONS 95), (sym_true, ACTIONS 93), (sym_false, ACTIONS 93),
    (sym_none, ACTIONS 93), (sym_comment, ACTIONS 3), (sym_line_continuation, ACTIONS 3),
    (sym__dedent, ACTIONS 129), (sym_string_start, ACTIONS 97)]"

definition parse_table_354 :: "(nat \<times> nat) list" where "parse_table_354 = [
    (sym__statement, STATE 925), (sym__simple_statements, STATE 925),
    (sym_import_statement, STATE 11814), (sym_future_import_statement, STATE 11814),
    (sym_import_from_statement, STATE 11814), (sym_print_statement, STATE 11814),
    (sym_assert_statement, STATE 11814), (sym_comptime_assert_statement, STATE 11814),
    (sym_expression_statement, STATE 11814), (sym_tuple_expression, STATE 12425),
    (sym_named_expression, STATE 7969), (sym__named_expression_lhs, STATE 12752),
    (sym_return_statement, STATE 11814), (sym_delete_statement, STATE 11814),
    (sym_raise_statement, STATE 11814), (sym_pass_statement, STATE 11814),
    (sym_break_statement, STATE 11814), (sym_continue_statement, STATE 11814),
    (sym_extension_definition, STATE 925), (sym_mlir_region, STATE 925),
    (sym_comptime_statement, STATE 925), (sym_if_statement, STATE 925),
    (sym_match_statement, STATE 925), (sym_for_statement, STATE 925),
    (sym_while_statement, STATE 925), (sym_try_statement, STATE 925),
    (sym_with_statement, STATE 925), (sym_function_definition, STATE 925),
    (sym_global_statement, STATE 11814), (sym_nonlocal_statement, STATE 11814),
    (sym_exec_statement, STATE 11814), (sym_type_alias_statement, STATE 11814),
    (sym_parameterized_alias_statement, STATE 11814), (sym_class_definition, STATE 925),
    (sym_trait_definition, STATE 925), (sym_decorated_definition, STATE 925),
    (sym_decorator, STATE 3670), (sym_block, STATE 6244), (sym_pattern, STATE 8086),
    (sym_tuple_pattern, STATE 8101), (sym_list_pattern, STATE 8101),
    (sym_list_splat_pattern, STATE 6819), (sym_as_pattern, STATE 7969),
    (sym_expression, STATE 9883), (sym_primary_expression, STATE 7326),
    (sym_comptime_expression, STATE 7017), (sym_transfer_expression, STATE 7017),
    (sym_not_operator, STATE 7969), (sym_boolean_operator, STATE 7969),
    (sym_binary_operator, STATE 7017), (sym_unary_operator, STATE 7017),
    (sym_comparison_operator, STATE 7969), (sym_lambda, STATE 7969),
    (sym_assignment, STATE 12425), (sym_augmented_assignment, STATE 12425),
    (sym_pattern_list, STATE 8578), (sym_yield, STATE 12425), (sym_attribute, STATE 6836),
    (sym_subscript, STATE 6838), (sym_call, STATE 6845), (sym_mlir_type, STATE 7017),
    (sym_list, STATE 7017), (sym_set, STATE 7017), (sym_tuple, STATE 7017),
    (sym_dictionary, STATE 7017), (sym_struct_literal, STATE 7017),
    (sym_list_comprehension, STATE 7017), (sym_dictionary_comprehension, STATE 7017),
    (sym_set_comprehension, STATE 7017), (sym_generator_expression, STATE 7017),
    (sym_parenthesized_expression, STATE 7017), (sym_conditional_expression, STATE 7969),
    (sym_concatenated_string, STATE 7017), (sym_string, STATE 6751), (sym_await, STATE 7017),
    (aux_sym_module_repeat1, STATE 925), (aux_sym_decorated_definition_repeat1, STATE 3670),
    (sym_identifier, ACTIONS 9), (anon_sym_import, ACTIONS 11), (anon_sym_from, ACTIONS 13),
    (anon_sym_LPAREN, ACTIONS 15), (anon_sym_STAR, ACTIONS 17), (anon_sym_print, ACTIONS 19),
    (anon_sym_comptime, ACTIONS 99), (anon_sym_assert, ACTIONS 23),
    (anon_sym___comptime_assert, ACTIONS 25), (anon_sym_return, ACTIONS 27),
    (anon_sym_del, ACTIONS 29), (anon_sym_raise, ACTIONS 31), (anon_sym_pass, ACTIONS 33),
    (anon_sym_break, ACTIONS 35), (anon_sym_continue, ACTIONS 37),
    (anon_sym___extension, ACTIONS 101), (anon_sym___mlir_region, ACTIONS 103),
    (anon_sym_if, ACTIONS 105), (anon_sym_match, ACTIONS 107), (anon_sym_async, ACTIONS 109),
    (anon_sym_for, ACTIONS 111), (anon_sym_while, ACTIONS 113), (anon_sym_try, ACTIONS 115),
    (anon_sym_with, ACTIONS 117), (anon_sym_def, ACTIONS 119), (anon_sym_fn, ACTIONS 119),
    (anon_sym_LBRACK, ACTIONS 59), (anon_sym_LBRACE, ACTIONS 61), (anon_sym_global, ACTIONS 63),
    (anon_sym_nonlocal, ACTIONS 65), (anon_sym_exec, ACTIONS 67), (anon_sym_type, ACTIONS 69),
    (anon_sym_class, ACTIONS 121), (anon_sym_struct, ACTIONS 121), (anon_sym_mut, ACTIONS 73),
    (anon_sym_out, ACTIONS 73), (anon_sym_trait, ACTIONS 123), (anon_sym_AT, ACTIONS 77),
    (anon_sym_DASH, ACTIONS 79), (anon_sym_PLUS, ACTIONS 79), (anon_sym_ref, ACTIONS 81),
    (anon_sym_var, ACTIONS 81), (anon_sym_not, ACTIONS 83), (anon_sym_TILDE, ACTIONS 79),
    (anon_sym_lambda, ACTIONS 85), (anon_sym_yield, ACTIONS 87), (sym_ellipsis, ACTIONS 89),
    (anon_sym___mlir_type, ACTIONS 91), (sym_integer, ACTIONS 93), (sym_float, ACTIONS 89),
    (anon_sym_await, ACTIONS 95), (sym_true, ACTIONS 93), (sym_false, ACTIONS 93),
    (sym_none, ACTIONS 93), (sym_comment, ACTIONS 3), (sym_line_continuation, ACTIONS 3),
    (sym__dedent, ACTIONS 129), (sym_string_start, ACTIONS 97)]"

definition parse_table_355 :: "(nat \<times> nat) list" where "parse_table_355 = [
    (sym__statement, STATE 925), (sym__simple_statements, STATE 925),
    (sym_import_statement, STATE 11814), (sym_future_import_statement, STATE 11814),
    (sym_import_from_statement, STATE 11814), (sym_print_statement, STATE 11814),
    (sym_assert_statement, STATE 11814), (sym_comptime_assert_statement, STATE 11814),
    (sym_expression_statement, STATE 11814), (sym_tuple_expression, STATE 12425),
    (sym_named_expression, STATE 7969), (sym__named_expression_lhs, STATE 12752),
    (sym_return_statement, STATE 11814), (sym_delete_statement, STATE 11814),
    (sym_raise_statement, STATE 11814), (sym_pass_statement, STATE 11814),
    (sym_break_statement, STATE 11814), (sym_continue_statement, STATE 11814),
    (sym_extension_definition, STATE 925), (sym_mlir_region, STATE 925),
    (sym_comptime_statement, STATE 925), (sym_if_statement, STATE 925),
    (sym_match_statement, STATE 925), (sym_for_statement, STATE 925),
    (sym_while_statement, STATE 925), (sym_try_statement, STATE 925),
    (sym_with_statement, STATE 925), (sym_function_definition, STATE 925),
    (sym_global_statement, STATE 11814), (sym_nonlocal_statement, STATE 11814),
    (sym_exec_statement, STATE 11814), (sym_type_alias_statement, STATE 11814),
    (sym_parameterized_alias_statement, STATE 11814), (sym_class_definition, STATE 925),
    (sym_trait_definition, STATE 925), (sym_decorated_definition, STATE 925),
    (sym_decorator, STATE 3670), (sym_block, STATE 6251), (sym_pattern, STATE 8086),
    (sym_tuple_pattern, STATE 8101), (sym_list_pattern, STATE 8101),
    (sym_list_splat_pattern, STATE 6819), (sym_as_pattern, STATE 7969),
    (sym_expression, STATE 9883), (sym_primary_expression, STATE 7326),
    (sym_comptime_expression, STATE 7017), (sym_transfer_expression, STATE 7017),
    (sym_not_operator, STATE 7969), (sym_boolean_operator, STATE 7969),
    (sym_binary_operator, STATE 7017), (sym_unary_operator, STATE 7017),
    (sym_comparison_operator, STATE 7969), (sym_lambda, STATE 7969),
    (sym_assignment, STATE 12425), (sym_augmented_assignment, STATE 12425),
    (sym_pattern_list, STATE 8578), (sym_yield, STATE 12425), (sym_attribute, STATE 6836),
    (sym_subscript, STATE 6838), (sym_call, STATE 6845), (sym_mlir_type, STATE 7017),
    (sym_list, STATE 7017), (sym_set, STATE 7017), (sym_tuple, STATE 7017),
    (sym_dictionary, STATE 7017), (sym_struct_literal, STATE 7017),
    (sym_list_comprehension, STATE 7017), (sym_dictionary_comprehension, STATE 7017),
    (sym_set_comprehension, STATE 7017), (sym_generator_expression, STATE 7017),
    (sym_parenthesized_expression, STATE 7017), (sym_conditional_expression, STATE 7969),
    (sym_concatenated_string, STATE 7017), (sym_string, STATE 6751), (sym_await, STATE 7017),
    (aux_sym_module_repeat1, STATE 925), (aux_sym_decorated_definition_repeat1, STATE 3670),
    (sym_identifier, ACTIONS 9), (anon_sym_import, ACTIONS 11), (anon_sym_from, ACTIONS 13),
    (anon_sym_LPAREN, ACTIONS 15), (anon_sym_STAR, ACTIONS 17), (anon_sym_print, ACTIONS 19),
    (anon_sym_comptime, ACTIONS 99), (anon_sym_assert, ACTIONS 23),
    (anon_sym___comptime_assert, ACTIONS 25), (anon_sym_return, ACTIONS 27),
    (anon_sym_del, ACTIONS 29), (anon_sym_raise, ACTIONS 31), (anon_sym_pass, ACTIONS 33),
    (anon_sym_break, ACTIONS 35), (anon_sym_continue, ACTIONS 37),
    (anon_sym___extension, ACTIONS 101), (anon_sym___mlir_region, ACTIONS 103),
    (anon_sym_if, ACTIONS 105), (anon_sym_match, ACTIONS 107), (anon_sym_async, ACTIONS 109),
    (anon_sym_for, ACTIONS 111), (anon_sym_while, ACTIONS 113), (anon_sym_try, ACTIONS 115),
    (anon_sym_with, ACTIONS 117), (anon_sym_def, ACTIONS 119), (anon_sym_fn, ACTIONS 119),
    (anon_sym_LBRACK, ACTIONS 59), (anon_sym_LBRACE, ACTIONS 61), (anon_sym_global, ACTIONS 63),
    (anon_sym_nonlocal, ACTIONS 65), (anon_sym_exec, ACTIONS 67), (anon_sym_type, ACTIONS 69),
    (anon_sym_class, ACTIONS 121), (anon_sym_struct, ACTIONS 121), (anon_sym_mut, ACTIONS 73),
    (anon_sym_out, ACTIONS 73), (anon_sym_trait, ACTIONS 123), (anon_sym_AT, ACTIONS 77),
    (anon_sym_DASH, ACTIONS 79), (anon_sym_PLUS, ACTIONS 79), (anon_sym_ref, ACTIONS 81),
    (anon_sym_var, ACTIONS 81), (anon_sym_not, ACTIONS 83), (anon_sym_TILDE, ACTIONS 79),
    (anon_sym_lambda, ACTIONS 85), (anon_sym_yield, ACTIONS 87), (sym_ellipsis, ACTIONS 89),
    (anon_sym___mlir_type, ACTIONS 91), (sym_integer, ACTIONS 93), (sym_float, ACTIONS 89),
    (anon_sym_await, ACTIONS 95), (sym_true, ACTIONS 93), (sym_false, ACTIONS 93),
    (sym_none, ACTIONS 93), (sym_comment, ACTIONS 3), (sym_line_continuation, ACTIONS 3),
    (sym__dedent, ACTIONS 129), (sym_string_start, ACTIONS 97)]"

definition parse_table_356 :: "(nat \<times> nat) list" where "parse_table_356 = [
    (sym__statement, STATE 925), (sym__simple_statements, STATE 925),
    (sym_import_statement, STATE 11814), (sym_future_import_statement, STATE 11814),
    (sym_import_from_statement, STATE 11814), (sym_print_statement, STATE 11814),
    (sym_assert_statement, STATE 11814), (sym_comptime_assert_statement, STATE 11814),
    (sym_expression_statement, STATE 11814), (sym_tuple_expression, STATE 12425),
    (sym_named_expression, STATE 7969), (sym__named_expression_lhs, STATE 12752),
    (sym_return_statement, STATE 11814), (sym_delete_statement, STATE 11814),
    (sym_raise_statement, STATE 11814), (sym_pass_statement, STATE 11814),
    (sym_break_statement, STATE 11814), (sym_continue_statement, STATE 11814),
    (sym_extension_definition, STATE 925), (sym_mlir_region, STATE 925),
    (sym_comptime_statement, STATE 925), (sym_if_statement, STATE 925),
    (sym_match_statement, STATE 925), (sym_for_statement, STATE 925),
    (sym_while_statement, STATE 925), (sym_try_statement, STATE 925),
    (sym_with_statement, STATE 925), (sym_function_definition, STATE 925),
    (sym_global_statement, STATE 11814), (sym_nonlocal_statement, STATE 11814),
    (sym_exec_statement, STATE 11814), (sym_type_alias_statement, STATE 11814),
    (sym_parameterized_alias_statement, STATE 11814), (sym_class_definition, STATE 925),
    (sym_trait_definition, STATE 925), (sym_decorated_definition, STATE 925),
    (sym_decorator, STATE 3670), (sym_block, STATE 6252), (sym_pattern, STATE 8086),
    (sym_tuple_pattern, STATE 8101), (sym_list_pattern, STATE 8101),
    (sym_list_splat_pattern, STATE 6819), (sym_as_pattern, STATE 7969),
    (sym_expression, STATE 9883), (sym_primary_expression, STATE 7326),
    (sym_comptime_expression, STATE 7017), (sym_transfer_expression, STATE 7017),
    (sym_not_operator, STATE 7969), (sym_boolean_operator, STATE 7969),
    (sym_binary_operator, STATE 7017), (sym_unary_operator, STATE 7017),
    (sym_comparison_operator, STATE 7969), (sym_lambda, STATE 7969),
    (sym_assignment, STATE 12425), (sym_augmented_assignment, STATE 12425),
    (sym_pattern_list, STATE 8578), (sym_yield, STATE 12425), (sym_attribute, STATE 6836),
    (sym_subscript, STATE 6838), (sym_call, STATE 6845), (sym_mlir_type, STATE 7017),
    (sym_list, STATE 7017), (sym_set, STATE 7017), (sym_tuple, STATE 7017),
    (sym_dictionary, STATE 7017), (sym_struct_literal, STATE 7017),
    (sym_list_comprehension, STATE 7017), (sym_dictionary_comprehension, STATE 7017),
    (sym_set_comprehension, STATE 7017), (sym_generator_expression, STATE 7017),
    (sym_parenthesized_expression, STATE 7017), (sym_conditional_expression, STATE 7969),
    (sym_concatenated_string, STATE 7017), (sym_string, STATE 6751), (sym_await, STATE 7017),
    (aux_sym_module_repeat1, STATE 925), (aux_sym_decorated_definition_repeat1, STATE 3670),
    (sym_identifier, ACTIONS 9), (anon_sym_import, ACTIONS 11), (anon_sym_from, ACTIONS 13),
    (anon_sym_LPAREN, ACTIONS 15), (anon_sym_STAR, ACTIONS 17), (anon_sym_print, ACTIONS 19),
    (anon_sym_comptime, ACTIONS 99), (anon_sym_assert, ACTIONS 23),
    (anon_sym___comptime_assert, ACTIONS 25), (anon_sym_return, ACTIONS 27),
    (anon_sym_del, ACTIONS 29), (anon_sym_raise, ACTIONS 31), (anon_sym_pass, ACTIONS 33),
    (anon_sym_break, ACTIONS 35), (anon_sym_continue, ACTIONS 37),
    (anon_sym___extension, ACTIONS 101), (anon_sym___mlir_region, ACTIONS 103),
    (anon_sym_if, ACTIONS 105), (anon_sym_match, ACTIONS 107), (anon_sym_async, ACTIONS 109),
    (anon_sym_for, ACTIONS 111), (anon_sym_while, ACTIONS 113), (anon_sym_try, ACTIONS 115),
    (anon_sym_with, ACTIONS 117), (anon_sym_def, ACTIONS 119), (anon_sym_fn, ACTIONS 119),
    (anon_sym_LBRACK, ACTIONS 59), (anon_sym_LBRACE, ACTIONS 61), (anon_sym_global, ACTIONS 63),
    (anon_sym_nonlocal, ACTIONS 65), (anon_sym_exec, ACTIONS 67), (anon_sym_type, ACTIONS 69),
    (anon_sym_class, ACTIONS 121), (anon_sym_struct, ACTIONS 121), (anon_sym_mut, ACTIONS 73),
    (anon_sym_out, ACTIONS 73), (anon_sym_trait, ACTIONS 123), (anon_sym_AT, ACTIONS 77),
    (anon_sym_DASH, ACTIONS 79), (anon_sym_PLUS, ACTIONS 79), (anon_sym_ref, ACTIONS 81),
    (anon_sym_var, ACTIONS 81), (anon_sym_not, ACTIONS 83), (anon_sym_TILDE, ACTIONS 79),
    (anon_sym_lambda, ACTIONS 85), (anon_sym_yield, ACTIONS 87), (sym_ellipsis, ACTIONS 89),
    (anon_sym___mlir_type, ACTIONS 91), (sym_integer, ACTIONS 93), (sym_float, ACTIONS 89),
    (anon_sym_await, ACTIONS 95), (sym_true, ACTIONS 93), (sym_false, ACTIONS 93),
    (sym_none, ACTIONS 93), (sym_comment, ACTIONS 3), (sym_line_continuation, ACTIONS 3),
    (sym__dedent, ACTIONS 129), (sym_string_start, ACTIONS 97)]"

definition parse_table_357 :: "(nat \<times> nat) list" where "parse_table_357 = [
    (sym__statement, STATE 925), (sym__simple_statements, STATE 925),
    (sym_import_statement, STATE 11814), (sym_future_import_statement, STATE 11814),
    (sym_import_from_statement, STATE 11814), (sym_print_statement, STATE 11814),
    (sym_assert_statement, STATE 11814), (sym_comptime_assert_statement, STATE 11814),
    (sym_expression_statement, STATE 11814), (sym_tuple_expression, STATE 12425),
    (sym_named_expression, STATE 7969), (sym__named_expression_lhs, STATE 12752),
    (sym_return_statement, STATE 11814), (sym_delete_statement, STATE 11814),
    (sym_raise_statement, STATE 11814), (sym_pass_statement, STATE 11814),
    (sym_break_statement, STATE 11814), (sym_continue_statement, STATE 11814),
    (sym_extension_definition, STATE 925), (sym_mlir_region, STATE 925),
    (sym_comptime_statement, STATE 925), (sym_if_statement, STATE 925),
    (sym_match_statement, STATE 925), (sym_for_statement, STATE 925),
    (sym_while_statement, STATE 925), (sym_try_statement, STATE 925),
    (sym_with_statement, STATE 925), (sym_function_definition, STATE 925),
    (sym_global_statement, STATE 11814), (sym_nonlocal_statement, STATE 11814),
    (sym_exec_statement, STATE 11814), (sym_type_alias_statement, STATE 11814),
    (sym_parameterized_alias_statement, STATE 11814), (sym_class_definition, STATE 925),
    (sym_trait_definition, STATE 925), (sym_decorated_definition, STATE 925),
    (sym_decorator, STATE 3670), (sym_block, STATE 6253), (sym_pattern, STATE 8086),
    (sym_tuple_pattern, STATE 8101), (sym_list_pattern, STATE 8101),
    (sym_list_splat_pattern, STATE 6819), (sym_as_pattern, STATE 7969),
    (sym_expression, STATE 9883), (sym_primary_expression, STATE 7326),
    (sym_comptime_expression, STATE 7017), (sym_transfer_expression, STATE 7017),
    (sym_not_operator, STATE 7969), (sym_boolean_operator, STATE 7969),
    (sym_binary_operator, STATE 7017), (sym_unary_operator, STATE 7017),
    (sym_comparison_operator, STATE 7969), (sym_lambda, STATE 7969),
    (sym_assignment, STATE 12425), (sym_augmented_assignment, STATE 12425),
    (sym_pattern_list, STATE 8578), (sym_yield, STATE 12425), (sym_attribute, STATE 6836),
    (sym_subscript, STATE 6838), (sym_call, STATE 6845), (sym_mlir_type, STATE 7017),
    (sym_list, STATE 7017), (sym_set, STATE 7017), (sym_tuple, STATE 7017),
    (sym_dictionary, STATE 7017), (sym_struct_literal, STATE 7017),
    (sym_list_comprehension, STATE 7017), (sym_dictionary_comprehension, STATE 7017),
    (sym_set_comprehension, STATE 7017), (sym_generator_expression, STATE 7017),
    (sym_parenthesized_expression, STATE 7017), (sym_conditional_expression, STATE 7969),
    (sym_concatenated_string, STATE 7017), (sym_string, STATE 6751), (sym_await, STATE 7017),
    (aux_sym_module_repeat1, STATE 925), (aux_sym_decorated_definition_repeat1, STATE 3670),
    (sym_identifier, ACTIONS 9), (anon_sym_import, ACTIONS 11), (anon_sym_from, ACTIONS 13),
    (anon_sym_LPAREN, ACTIONS 15), (anon_sym_STAR, ACTIONS 17), (anon_sym_print, ACTIONS 19),
    (anon_sym_comptime, ACTIONS 99), (anon_sym_assert, ACTIONS 23),
    (anon_sym___comptime_assert, ACTIONS 25), (anon_sym_return, ACTIONS 27),
    (anon_sym_del, ACTIONS 29), (anon_sym_raise, ACTIONS 31), (anon_sym_pass, ACTIONS 33),
    (anon_sym_break, ACTIONS 35), (anon_sym_continue, ACTIONS 37),
    (anon_sym___extension, ACTIONS 101), (anon_sym___mlir_region, ACTIONS 103),
    (anon_sym_if, ACTIONS 105), (anon_sym_match, ACTIONS 107), (anon_sym_async, ACTIONS 109),
    (anon_sym_for, ACTIONS 111), (anon_sym_while, ACTIONS 113), (anon_sym_try, ACTIONS 115),
    (anon_sym_with, ACTIONS 117), (anon_sym_def, ACTIONS 119), (anon_sym_fn, ACTIONS 119),
    (anon_sym_LBRACK, ACTIONS 59), (anon_sym_LBRACE, ACTIONS 61), (anon_sym_global, ACTIONS 63),
    (anon_sym_nonlocal, ACTIONS 65), (anon_sym_exec, ACTIONS 67), (anon_sym_type, ACTIONS 69),
    (anon_sym_class, ACTIONS 121), (anon_sym_struct, ACTIONS 121), (anon_sym_mut, ACTIONS 73),
    (anon_sym_out, ACTIONS 73), (anon_sym_trait, ACTIONS 123), (anon_sym_AT, ACTIONS 77),
    (anon_sym_DASH, ACTIONS 79), (anon_sym_PLUS, ACTIONS 79), (anon_sym_ref, ACTIONS 81),
    (anon_sym_var, ACTIONS 81), (anon_sym_not, ACTIONS 83), (anon_sym_TILDE, ACTIONS 79),
    (anon_sym_lambda, ACTIONS 85), (anon_sym_yield, ACTIONS 87), (sym_ellipsis, ACTIONS 89),
    (anon_sym___mlir_type, ACTIONS 91), (sym_integer, ACTIONS 93), (sym_float, ACTIONS 89),
    (anon_sym_await, ACTIONS 95), (sym_true, ACTIONS 93), (sym_false, ACTIONS 93),
    (sym_none, ACTIONS 93), (sym_comment, ACTIONS 3), (sym_line_continuation, ACTIONS 3),
    (sym__dedent, ACTIONS 129), (sym_string_start, ACTIONS 97)]"

definition parse_table_358 :: "(nat \<times> nat) list" where "parse_table_358 = [
    (sym__statement, STATE 925), (sym__simple_statements, STATE 925),
    (sym_import_statement, STATE 11814), (sym_future_import_statement, STATE 11814),
    (sym_import_from_statement, STATE 11814), (sym_print_statement, STATE 11814),
    (sym_assert_statement, STATE 11814), (sym_comptime_assert_statement, STATE 11814),
    (sym_expression_statement, STATE 11814), (sym_tuple_expression, STATE 12425),
    (sym_named_expression, STATE 7969), (sym__named_expression_lhs, STATE 12752),
    (sym_return_statement, STATE 11814), (sym_delete_statement, STATE 11814),
    (sym_raise_statement, STATE 11814), (sym_pass_statement, STATE 11814),
    (sym_break_statement, STATE 11814), (sym_continue_statement, STATE 11814),
    (sym_extension_definition, STATE 925), (sym_mlir_region, STATE 925),
    (sym_comptime_statement, STATE 925), (sym_if_statement, STATE 925),
    (sym_match_statement, STATE 925), (sym_for_statement, STATE 925),
    (sym_while_statement, STATE 925), (sym_try_statement, STATE 925),
    (sym_with_statement, STATE 925), (sym_function_definition, STATE 925),
    (sym_global_statement, STATE 11814), (sym_nonlocal_statement, STATE 11814),
    (sym_exec_statement, STATE 11814), (sym_type_alias_statement, STATE 11814),
    (sym_parameterized_alias_statement, STATE 11814), (sym_class_definition, STATE 925),
    (sym_trait_definition, STATE 925), (sym_decorated_definition, STATE 925),
    (sym_decorator, STATE 3670), (sym_block, STATE 6257), (sym_pattern, STATE 8086),
    (sym_tuple_pattern, STATE 8101), (sym_list_pattern, STATE 8101),
    (sym_list_splat_pattern, STATE 6819), (sym_as_pattern, STATE 7969),
    (sym_expression, STATE 9883), (sym_primary_expression, STATE 7326),
    (sym_comptime_expression, STATE 7017), (sym_transfer_expression, STATE 7017),
    (sym_not_operator, STATE 7969), (sym_boolean_operator, STATE 7969),
    (sym_binary_operator, STATE 7017), (sym_unary_operator, STATE 7017),
    (sym_comparison_operator, STATE 7969), (sym_lambda, STATE 7969),
    (sym_assignment, STATE 12425), (sym_augmented_assignment, STATE 12425),
    (sym_pattern_list, STATE 8578), (sym_yield, STATE 12425), (sym_attribute, STATE 6836),
    (sym_subscript, STATE 6838), (sym_call, STATE 6845), (sym_mlir_type, STATE 7017),
    (sym_list, STATE 7017), (sym_set, STATE 7017), (sym_tuple, STATE 7017),
    (sym_dictionary, STATE 7017), (sym_struct_literal, STATE 7017),
    (sym_list_comprehension, STATE 7017), (sym_dictionary_comprehension, STATE 7017),
    (sym_set_comprehension, STATE 7017), (sym_generator_expression, STATE 7017),
    (sym_parenthesized_expression, STATE 7017), (sym_conditional_expression, STATE 7969),
    (sym_concatenated_string, STATE 7017), (sym_string, STATE 6751), (sym_await, STATE 7017),
    (aux_sym_module_repeat1, STATE 925), (aux_sym_decorated_definition_repeat1, STATE 3670),
    (sym_identifier, ACTIONS 9), (anon_sym_import, ACTIONS 11), (anon_sym_from, ACTIONS 13),
    (anon_sym_LPAREN, ACTIONS 15), (anon_sym_STAR, ACTIONS 17), (anon_sym_print, ACTIONS 19),
    (anon_sym_comptime, ACTIONS 99), (anon_sym_assert, ACTIONS 23),
    (anon_sym___comptime_assert, ACTIONS 25), (anon_sym_return, ACTIONS 27),
    (anon_sym_del, ACTIONS 29), (anon_sym_raise, ACTIONS 31), (anon_sym_pass, ACTIONS 33),
    (anon_sym_break, ACTIONS 35), (anon_sym_continue, ACTIONS 37),
    (anon_sym___extension, ACTIONS 101), (anon_sym___mlir_region, ACTIONS 103),
    (anon_sym_if, ACTIONS 105), (anon_sym_match, ACTIONS 107), (anon_sym_async, ACTIONS 109),
    (anon_sym_for, ACTIONS 111), (anon_sym_while, ACTIONS 113), (anon_sym_try, ACTIONS 115),
    (anon_sym_with, ACTIONS 117), (anon_sym_def, ACTIONS 119), (anon_sym_fn, ACTIONS 119),
    (anon_sym_LBRACK, ACTIONS 59), (anon_sym_LBRACE, ACTIONS 61), (anon_sym_global, ACTIONS 63),
    (anon_sym_nonlocal, ACTIONS 65), (anon_sym_exec, ACTIONS 67), (anon_sym_type, ACTIONS 69),
    (anon_sym_class, ACTIONS 121), (anon_sym_struct, ACTIONS 121), (anon_sym_mut, ACTIONS 73),
    (anon_sym_out, ACTIONS 73), (anon_sym_trait, ACTIONS 123), (anon_sym_AT, ACTIONS 77),
    (anon_sym_DASH, ACTIONS 79), (anon_sym_PLUS, ACTIONS 79), (anon_sym_ref, ACTIONS 81),
    (anon_sym_var, ACTIONS 81), (anon_sym_not, ACTIONS 83), (anon_sym_TILDE, ACTIONS 79),
    (anon_sym_lambda, ACTIONS 85), (anon_sym_yield, ACTIONS 87), (sym_ellipsis, ACTIONS 89),
    (anon_sym___mlir_type, ACTIONS 91), (sym_integer, ACTIONS 93), (sym_float, ACTIONS 89),
    (anon_sym_await, ACTIONS 95), (sym_true, ACTIONS 93), (sym_false, ACTIONS 93),
    (sym_none, ACTIONS 93), (sym_comment, ACTIONS 3), (sym_line_continuation, ACTIONS 3),
    (sym__dedent, ACTIONS 129), (sym_string_start, ACTIONS 97)]"

definition parse_table_359 :: "(nat \<times> nat) list" where "parse_table_359 = [
    (sym__statement, STATE 925), (sym__simple_statements, STATE 925),
    (sym_import_statement, STATE 11814), (sym_future_import_statement, STATE 11814),
    (sym_import_from_statement, STATE 11814), (sym_print_statement, STATE 11814),
    (sym_assert_statement, STATE 11814), (sym_comptime_assert_statement, STATE 11814),
    (sym_expression_statement, STATE 11814), (sym_tuple_expression, STATE 12425),
    (sym_named_expression, STATE 7969), (sym__named_expression_lhs, STATE 12752),
    (sym_return_statement, STATE 11814), (sym_delete_statement, STATE 11814),
    (sym_raise_statement, STATE 11814), (sym_pass_statement, STATE 11814),
    (sym_break_statement, STATE 11814), (sym_continue_statement, STATE 11814),
    (sym_extension_definition, STATE 925), (sym_mlir_region, STATE 925),
    (sym_comptime_statement, STATE 925), (sym_if_statement, STATE 925),
    (sym_match_statement, STATE 925), (sym_for_statement, STATE 925),
    (sym_while_statement, STATE 925), (sym_try_statement, STATE 925),
    (sym_with_statement, STATE 925), (sym_function_definition, STATE 925),
    (sym_global_statement, STATE 11814), (sym_nonlocal_statement, STATE 11814),
    (sym_exec_statement, STATE 11814), (sym_type_alias_statement, STATE 11814),
    (sym_parameterized_alias_statement, STATE 11814), (sym_class_definition, STATE 925),
    (sym_trait_definition, STATE 925), (sym_decorated_definition, STATE 925),
    (sym_decorator, STATE 3670), (sym_block, STATE 6260), (sym_pattern, STATE 8086),
    (sym_tuple_pattern, STATE 8101), (sym_list_pattern, STATE 8101),
    (sym_list_splat_pattern, STATE 6819), (sym_as_pattern, STATE 7969),
    (sym_expression, STATE 9883), (sym_primary_expression, STATE 7326),
    (sym_comptime_expression, STATE 7017), (sym_transfer_expression, STATE 7017),
    (sym_not_operator, STATE 7969), (sym_boolean_operator, STATE 7969),
    (sym_binary_operator, STATE 7017), (sym_unary_operator, STATE 7017),
    (sym_comparison_operator, STATE 7969), (sym_lambda, STATE 7969),
    (sym_assignment, STATE 12425), (sym_augmented_assignment, STATE 12425),
    (sym_pattern_list, STATE 8578), (sym_yield, STATE 12425), (sym_attribute, STATE 6836),
    (sym_subscript, STATE 6838), (sym_call, STATE 6845), (sym_mlir_type, STATE 7017),
    (sym_list, STATE 7017), (sym_set, STATE 7017), (sym_tuple, STATE 7017),
    (sym_dictionary, STATE 7017), (sym_struct_literal, STATE 7017),
    (sym_list_comprehension, STATE 7017), (sym_dictionary_comprehension, STATE 7017),
    (sym_set_comprehension, STATE 7017), (sym_generator_expression, STATE 7017),
    (sym_parenthesized_expression, STATE 7017), (sym_conditional_expression, STATE 7969),
    (sym_concatenated_string, STATE 7017), (sym_string, STATE 6751), (sym_await, STATE 7017),
    (aux_sym_module_repeat1, STATE 925), (aux_sym_decorated_definition_repeat1, STATE 3670),
    (sym_identifier, ACTIONS 9), (anon_sym_import, ACTIONS 11), (anon_sym_from, ACTIONS 13),
    (anon_sym_LPAREN, ACTIONS 15), (anon_sym_STAR, ACTIONS 17), (anon_sym_print, ACTIONS 19),
    (anon_sym_comptime, ACTIONS 99), (anon_sym_assert, ACTIONS 23),
    (anon_sym___comptime_assert, ACTIONS 25), (anon_sym_return, ACTIONS 27),
    (anon_sym_del, ACTIONS 29), (anon_sym_raise, ACTIONS 31), (anon_sym_pass, ACTIONS 33),
    (anon_sym_break, ACTIONS 35), (anon_sym_continue, ACTIONS 37),
    (anon_sym___extension, ACTIONS 101), (anon_sym___mlir_region, ACTIONS 103),
    (anon_sym_if, ACTIONS 105), (anon_sym_match, ACTIONS 107), (anon_sym_async, ACTIONS 109),
    (anon_sym_for, ACTIONS 111), (anon_sym_while, ACTIONS 113), (anon_sym_try, ACTIONS 115),
    (anon_sym_with, ACTIONS 117), (anon_sym_def, ACTIONS 119), (anon_sym_fn, ACTIONS 119),
    (anon_sym_LBRACK, ACTIONS 59), (anon_sym_LBRACE, ACTIONS 61), (anon_sym_global, ACTIONS 63),
    (anon_sym_nonlocal, ACTIONS 65), (anon_sym_exec, ACTIONS 67), (anon_sym_type, ACTIONS 69),
    (anon_sym_class, ACTIONS 121), (anon_sym_struct, ACTIONS 121), (anon_sym_mut, ACTIONS 73),
    (anon_sym_out, ACTIONS 73), (anon_sym_trait, ACTIONS 123), (anon_sym_AT, ACTIONS 77),
    (anon_sym_DASH, ACTIONS 79), (anon_sym_PLUS, ACTIONS 79), (anon_sym_ref, ACTIONS 81),
    (anon_sym_var, ACTIONS 81), (anon_sym_not, ACTIONS 83), (anon_sym_TILDE, ACTIONS 79),
    (anon_sym_lambda, ACTIONS 85), (anon_sym_yield, ACTIONS 87), (sym_ellipsis, ACTIONS 89),
    (anon_sym___mlir_type, ACTIONS 91), (sym_integer, ACTIONS 93), (sym_float, ACTIONS 89),
    (anon_sym_await, ACTIONS 95), (sym_true, ACTIONS 93), (sym_false, ACTIONS 93),
    (sym_none, ACTIONS 93), (sym_comment, ACTIONS 3), (sym_line_continuation, ACTIONS 3),
    (sym__dedent, ACTIONS 129), (sym_string_start, ACTIONS 97)]"

definition parse_table_360 :: "(nat \<times> nat) list" where "parse_table_360 = [
    (sym__statement, STATE 925), (sym__simple_statements, STATE 925),
    (sym_import_statement, STATE 11814), (sym_future_import_statement, STATE 11814),
    (sym_import_from_statement, STATE 11814), (sym_print_statement, STATE 11814),
    (sym_assert_statement, STATE 11814), (sym_comptime_assert_statement, STATE 11814),
    (sym_expression_statement, STATE 11814), (sym_tuple_expression, STATE 12425),
    (sym_named_expression, STATE 7969), (sym__named_expression_lhs, STATE 12752),
    (sym_return_statement, STATE 11814), (sym_delete_statement, STATE 11814),
    (sym_raise_statement, STATE 11814), (sym_pass_statement, STATE 11814),
    (sym_break_statement, STATE 11814), (sym_continue_statement, STATE 11814),
    (sym_extension_definition, STATE 925), (sym_mlir_region, STATE 925),
    (sym_comptime_statement, STATE 925), (sym_if_statement, STATE 925),
    (sym_match_statement, STATE 925), (sym_for_statement, STATE 925),
    (sym_while_statement, STATE 925), (sym_try_statement, STATE 925),
    (sym_with_statement, STATE 925), (sym_function_definition, STATE 925),
    (sym_global_statement, STATE 11814), (sym_nonlocal_statement, STATE 11814),
    (sym_exec_statement, STATE 11814), (sym_type_alias_statement, STATE 11814),
    (sym_parameterized_alias_statement, STATE 11814), (sym_class_definition, STATE 925),
    (sym_trait_definition, STATE 925), (sym_decorated_definition, STATE 925),
    (sym_decorator, STATE 3670), (sym_block, STATE 6271), (sym_pattern, STATE 8086),
    (sym_tuple_pattern, STATE 8101), (sym_list_pattern, STATE 8101),
    (sym_list_splat_pattern, STATE 6819), (sym_as_pattern, STATE 7969),
    (sym_expression, STATE 9883), (sym_primary_expression, STATE 7326),
    (sym_comptime_expression, STATE 7017), (sym_transfer_expression, STATE 7017),
    (sym_not_operator, STATE 7969), (sym_boolean_operator, STATE 7969),
    (sym_binary_operator, STATE 7017), (sym_unary_operator, STATE 7017),
    (sym_comparison_operator, STATE 7969), (sym_lambda, STATE 7969),
    (sym_assignment, STATE 12425), (sym_augmented_assignment, STATE 12425),
    (sym_pattern_list, STATE 8578), (sym_yield, STATE 12425), (sym_attribute, STATE 6836),
    (sym_subscript, STATE 6838), (sym_call, STATE 6845), (sym_mlir_type, STATE 7017),
    (sym_list, STATE 7017), (sym_set, STATE 7017), (sym_tuple, STATE 7017),
    (sym_dictionary, STATE 7017), (sym_struct_literal, STATE 7017),
    (sym_list_comprehension, STATE 7017), (sym_dictionary_comprehension, STATE 7017),
    (sym_set_comprehension, STATE 7017), (sym_generator_expression, STATE 7017),
    (sym_parenthesized_expression, STATE 7017), (sym_conditional_expression, STATE 7969),
    (sym_concatenated_string, STATE 7017), (sym_string, STATE 6751), (sym_await, STATE 7017),
    (aux_sym_module_repeat1, STATE 925), (aux_sym_decorated_definition_repeat1, STATE 3670),
    (sym_identifier, ACTIONS 9), (anon_sym_import, ACTIONS 11), (anon_sym_from, ACTIONS 13),
    (anon_sym_LPAREN, ACTIONS 15), (anon_sym_STAR, ACTIONS 17), (anon_sym_print, ACTIONS 19),
    (anon_sym_comptime, ACTIONS 99), (anon_sym_assert, ACTIONS 23),
    (anon_sym___comptime_assert, ACTIONS 25), (anon_sym_return, ACTIONS 27),
    (anon_sym_del, ACTIONS 29), (anon_sym_raise, ACTIONS 31), (anon_sym_pass, ACTIONS 33),
    (anon_sym_break, ACTIONS 35), (anon_sym_continue, ACTIONS 37),
    (anon_sym___extension, ACTIONS 101), (anon_sym___mlir_region, ACTIONS 103),
    (anon_sym_if, ACTIONS 105), (anon_sym_match, ACTIONS 107), (anon_sym_async, ACTIONS 109),
    (anon_sym_for, ACTIONS 111), (anon_sym_while, ACTIONS 113), (anon_sym_try, ACTIONS 115),
    (anon_sym_with, ACTIONS 117), (anon_sym_def, ACTIONS 119), (anon_sym_fn, ACTIONS 119),
    (anon_sym_LBRACK, ACTIONS 59), (anon_sym_LBRACE, ACTIONS 61), (anon_sym_global, ACTIONS 63),
    (anon_sym_nonlocal, ACTIONS 65), (anon_sym_exec, ACTIONS 67), (anon_sym_type, ACTIONS 69),
    (anon_sym_class, ACTIONS 121), (anon_sym_struct, ACTIONS 121), (anon_sym_mut, ACTIONS 73),
    (anon_sym_out, ACTIONS 73), (anon_sym_trait, ACTIONS 123), (anon_sym_AT, ACTIONS 77),
    (anon_sym_DASH, ACTIONS 79), (anon_sym_PLUS, ACTIONS 79), (anon_sym_ref, ACTIONS 81),
    (anon_sym_var, ACTIONS 81), (anon_sym_not, ACTIONS 83), (anon_sym_TILDE, ACTIONS 79),
    (anon_sym_lambda, ACTIONS 85), (anon_sym_yield, ACTIONS 87), (sym_ellipsis, ACTIONS 89),
    (anon_sym___mlir_type, ACTIONS 91), (sym_integer, ACTIONS 93), (sym_float, ACTIONS 89),
    (anon_sym_await, ACTIONS 95), (sym_true, ACTIONS 93), (sym_false, ACTIONS 93),
    (sym_none, ACTIONS 93), (sym_comment, ACTIONS 3), (sym_line_continuation, ACTIONS 3),
    (sym__dedent, ACTIONS 129), (sym_string_start, ACTIONS 97)]"

definition parse_table_361 :: "(nat \<times> nat) list" where "parse_table_361 = [
    (sym__statement, STATE 925), (sym__simple_statements, STATE 925),
    (sym_import_statement, STATE 11814), (sym_future_import_statement, STATE 11814),
    (sym_import_from_statement, STATE 11814), (sym_print_statement, STATE 11814),
    (sym_assert_statement, STATE 11814), (sym_comptime_assert_statement, STATE 11814),
    (sym_expression_statement, STATE 11814), (sym_tuple_expression, STATE 12425),
    (sym_named_expression, STATE 7969), (sym__named_expression_lhs, STATE 12752),
    (sym_return_statement, STATE 11814), (sym_delete_statement, STATE 11814),
    (sym_raise_statement, STATE 11814), (sym_pass_statement, STATE 11814),
    (sym_break_statement, STATE 11814), (sym_continue_statement, STATE 11814),
    (sym_extension_definition, STATE 925), (sym_mlir_region, STATE 925),
    (sym_comptime_statement, STATE 925), (sym_if_statement, STATE 925),
    (sym_match_statement, STATE 925), (sym_for_statement, STATE 925),
    (sym_while_statement, STATE 925), (sym_try_statement, STATE 925),
    (sym_with_statement, STATE 925), (sym_function_definition, STATE 925),
    (sym_global_statement, STATE 11814), (sym_nonlocal_statement, STATE 11814),
    (sym_exec_statement, STATE 11814), (sym_type_alias_statement, STATE 11814),
    (sym_parameterized_alias_statement, STATE 11814), (sym_class_definition, STATE 925),
    (sym_trait_definition, STATE 925), (sym_decorated_definition, STATE 925),
    (sym_decorator, STATE 3670), (sym_block, STATE 6272), (sym_pattern, STATE 8086),
    (sym_tuple_pattern, STATE 8101), (sym_list_pattern, STATE 8101),
    (sym_list_splat_pattern, STATE 6819), (sym_as_pattern, STATE 7969),
    (sym_expression, STATE 9883), (sym_primary_expression, STATE 7326),
    (sym_comptime_expression, STATE 7017), (sym_transfer_expression, STATE 7017),
    (sym_not_operator, STATE 7969), (sym_boolean_operator, STATE 7969),
    (sym_binary_operator, STATE 7017), (sym_unary_operator, STATE 7017),
    (sym_comparison_operator, STATE 7969), (sym_lambda, STATE 7969),
    (sym_assignment, STATE 12425), (sym_augmented_assignment, STATE 12425),
    (sym_pattern_list, STATE 8578), (sym_yield, STATE 12425), (sym_attribute, STATE 6836),
    (sym_subscript, STATE 6838), (sym_call, STATE 6845), (sym_mlir_type, STATE 7017),
    (sym_list, STATE 7017), (sym_set, STATE 7017), (sym_tuple, STATE 7017),
    (sym_dictionary, STATE 7017), (sym_struct_literal, STATE 7017),
    (sym_list_comprehension, STATE 7017), (sym_dictionary_comprehension, STATE 7017),
    (sym_set_comprehension, STATE 7017), (sym_generator_expression, STATE 7017),
    (sym_parenthesized_expression, STATE 7017), (sym_conditional_expression, STATE 7969),
    (sym_concatenated_string, STATE 7017), (sym_string, STATE 6751), (sym_await, STATE 7017),
    (aux_sym_module_repeat1, STATE 925), (aux_sym_decorated_definition_repeat1, STATE 3670),
    (sym_identifier, ACTIONS 9), (anon_sym_import, ACTIONS 11), (anon_sym_from, ACTIONS 13),
    (anon_sym_LPAREN, ACTIONS 15), (anon_sym_STAR, ACTIONS 17), (anon_sym_print, ACTIONS 19),
    (anon_sym_comptime, ACTIONS 99), (anon_sym_assert, ACTIONS 23),
    (anon_sym___comptime_assert, ACTIONS 25), (anon_sym_return, ACTIONS 27),
    (anon_sym_del, ACTIONS 29), (anon_sym_raise, ACTIONS 31), (anon_sym_pass, ACTIONS 33),
    (anon_sym_break, ACTIONS 35), (anon_sym_continue, ACTIONS 37),
    (anon_sym___extension, ACTIONS 101), (anon_sym___mlir_region, ACTIONS 103),
    (anon_sym_if, ACTIONS 105), (anon_sym_match, ACTIONS 107), (anon_sym_async, ACTIONS 109),
    (anon_sym_for, ACTIONS 111), (anon_sym_while, ACTIONS 113), (anon_sym_try, ACTIONS 115),
    (anon_sym_with, ACTIONS 117), (anon_sym_def, ACTIONS 119), (anon_sym_fn, ACTIONS 119),
    (anon_sym_LBRACK, ACTIONS 59), (anon_sym_LBRACE, ACTIONS 61), (anon_sym_global, ACTIONS 63),
    (anon_sym_nonlocal, ACTIONS 65), (anon_sym_exec, ACTIONS 67), (anon_sym_type, ACTIONS 69),
    (anon_sym_class, ACTIONS 121), (anon_sym_struct, ACTIONS 121), (anon_sym_mut, ACTIONS 73),
    (anon_sym_out, ACTIONS 73), (anon_sym_trait, ACTIONS 123), (anon_sym_AT, ACTIONS 77),
    (anon_sym_DASH, ACTIONS 79), (anon_sym_PLUS, ACTIONS 79), (anon_sym_ref, ACTIONS 81),
    (anon_sym_var, ACTIONS 81), (anon_sym_not, ACTIONS 83), (anon_sym_TILDE, ACTIONS 79),
    (anon_sym_lambda, ACTIONS 85), (anon_sym_yield, ACTIONS 87), (sym_ellipsis, ACTIONS 89),
    (anon_sym___mlir_type, ACTIONS 91), (sym_integer, ACTIONS 93), (sym_float, ACTIONS 89),
    (anon_sym_await, ACTIONS 95), (sym_true, ACTIONS 93), (sym_false, ACTIONS 93),
    (sym_none, ACTIONS 93), (sym_comment, ACTIONS 3), (sym_line_continuation, ACTIONS 3),
    (sym__dedent, ACTIONS 129), (sym_string_start, ACTIONS 97)]"

definition parse_table_362 :: "(nat \<times> nat) list" where "parse_table_362 = [
    (sym__statement, STATE 925), (sym__simple_statements, STATE 925),
    (sym_import_statement, STATE 11814), (sym_future_import_statement, STATE 11814),
    (sym_import_from_statement, STATE 11814), (sym_print_statement, STATE 11814),
    (sym_assert_statement, STATE 11814), (sym_comptime_assert_statement, STATE 11814),
    (sym_expression_statement, STATE 11814), (sym_tuple_expression, STATE 12425),
    (sym_named_expression, STATE 7969), (sym__named_expression_lhs, STATE 12752),
    (sym_return_statement, STATE 11814), (sym_delete_statement, STATE 11814),
    (sym_raise_statement, STATE 11814), (sym_pass_statement, STATE 11814),
    (sym_break_statement, STATE 11814), (sym_continue_statement, STATE 11814),
    (sym_extension_definition, STATE 925), (sym_mlir_region, STATE 925),
    (sym_comptime_statement, STATE 925), (sym_if_statement, STATE 925),
    (sym_match_statement, STATE 925), (sym_for_statement, STATE 925),
    (sym_while_statement, STATE 925), (sym_try_statement, STATE 925),
    (sym_with_statement, STATE 925), (sym_function_definition, STATE 925),
    (sym_global_statement, STATE 11814), (sym_nonlocal_statement, STATE 11814),
    (sym_exec_statement, STATE 11814), (sym_type_alias_statement, STATE 11814),
    (sym_parameterized_alias_statement, STATE 11814), (sym_class_definition, STATE 925),
    (sym_trait_definition, STATE 925), (sym_decorated_definition, STATE 925),
    (sym_decorator, STATE 3670), (sym_block, STATE 6273), (sym_pattern, STATE 8086),
    (sym_tuple_pattern, STATE 8101), (sym_list_pattern, STATE 8101),
    (sym_list_splat_pattern, STATE 6819), (sym_as_pattern, STATE 7969),
    (sym_expression, STATE 9883), (sym_primary_expression, STATE 7326),
    (sym_comptime_expression, STATE 7017), (sym_transfer_expression, STATE 7017),
    (sym_not_operator, STATE 7969), (sym_boolean_operator, STATE 7969),
    (sym_binary_operator, STATE 7017), (sym_unary_operator, STATE 7017),
    (sym_comparison_operator, STATE 7969), (sym_lambda, STATE 7969),
    (sym_assignment, STATE 12425), (sym_augmented_assignment, STATE 12425),
    (sym_pattern_list, STATE 8578), (sym_yield, STATE 12425), (sym_attribute, STATE 6836),
    (sym_subscript, STATE 6838), (sym_call, STATE 6845), (sym_mlir_type, STATE 7017),
    (sym_list, STATE 7017), (sym_set, STATE 7017), (sym_tuple, STATE 7017),
    (sym_dictionary, STATE 7017), (sym_struct_literal, STATE 7017),
    (sym_list_comprehension, STATE 7017), (sym_dictionary_comprehension, STATE 7017),
    (sym_set_comprehension, STATE 7017), (sym_generator_expression, STATE 7017),
    (sym_parenthesized_expression, STATE 7017), (sym_conditional_expression, STATE 7969),
    (sym_concatenated_string, STATE 7017), (sym_string, STATE 6751), (sym_await, STATE 7017),
    (aux_sym_module_repeat1, STATE 925), (aux_sym_decorated_definition_repeat1, STATE 3670),
    (sym_identifier, ACTIONS 9), (anon_sym_import, ACTIONS 11), (anon_sym_from, ACTIONS 13),
    (anon_sym_LPAREN, ACTIONS 15), (anon_sym_STAR, ACTIONS 17), (anon_sym_print, ACTIONS 19),
    (anon_sym_comptime, ACTIONS 99), (anon_sym_assert, ACTIONS 23),
    (anon_sym___comptime_assert, ACTIONS 25), (anon_sym_return, ACTIONS 27),
    (anon_sym_del, ACTIONS 29), (anon_sym_raise, ACTIONS 31), (anon_sym_pass, ACTIONS 33),
    (anon_sym_break, ACTIONS 35), (anon_sym_continue, ACTIONS 37),
    (anon_sym___extension, ACTIONS 101), (anon_sym___mlir_region, ACTIONS 103),
    (anon_sym_if, ACTIONS 105), (anon_sym_match, ACTIONS 107), (anon_sym_async, ACTIONS 109),
    (anon_sym_for, ACTIONS 111), (anon_sym_while, ACTIONS 113), (anon_sym_try, ACTIONS 115),
    (anon_sym_with, ACTIONS 117), (anon_sym_def, ACTIONS 119), (anon_sym_fn, ACTIONS 119),
    (anon_sym_LBRACK, ACTIONS 59), (anon_sym_LBRACE, ACTIONS 61), (anon_sym_global, ACTIONS 63),
    (anon_sym_nonlocal, ACTIONS 65), (anon_sym_exec, ACTIONS 67), (anon_sym_type, ACTIONS 69),
    (anon_sym_class, ACTIONS 121), (anon_sym_struct, ACTIONS 121), (anon_sym_mut, ACTIONS 73),
    (anon_sym_out, ACTIONS 73), (anon_sym_trait, ACTIONS 123), (anon_sym_AT, ACTIONS 77),
    (anon_sym_DASH, ACTIONS 79), (anon_sym_PLUS, ACTIONS 79), (anon_sym_ref, ACTIONS 81),
    (anon_sym_var, ACTIONS 81), (anon_sym_not, ACTIONS 83), (anon_sym_TILDE, ACTIONS 79),
    (anon_sym_lambda, ACTIONS 85), (anon_sym_yield, ACTIONS 87), (sym_ellipsis, ACTIONS 89),
    (anon_sym___mlir_type, ACTIONS 91), (sym_integer, ACTIONS 93), (sym_float, ACTIONS 89),
    (anon_sym_await, ACTIONS 95), (sym_true, ACTIONS 93), (sym_false, ACTIONS 93),
    (sym_none, ACTIONS 93), (sym_comment, ACTIONS 3), (sym_line_continuation, ACTIONS 3),
    (sym__dedent, ACTIONS 129), (sym_string_start, ACTIONS 97)]"

definition parse_table_363 :: "(nat \<times> nat) list" where "parse_table_363 = [
    (sym__statement, STATE 925), (sym__simple_statements, STATE 925),
    (sym_import_statement, STATE 11814), (sym_future_import_statement, STATE 11814),
    (sym_import_from_statement, STATE 11814), (sym_print_statement, STATE 11814),
    (sym_assert_statement, STATE 11814), (sym_comptime_assert_statement, STATE 11814),
    (sym_expression_statement, STATE 11814), (sym_tuple_expression, STATE 12425),
    (sym_named_expression, STATE 7969), (sym__named_expression_lhs, STATE 12752),
    (sym_return_statement, STATE 11814), (sym_delete_statement, STATE 11814),
    (sym_raise_statement, STATE 11814), (sym_pass_statement, STATE 11814),
    (sym_break_statement, STATE 11814), (sym_continue_statement, STATE 11814),
    (sym_extension_definition, STATE 925), (sym_mlir_region, STATE 925),
    (sym_comptime_statement, STATE 925), (sym_if_statement, STATE 925),
    (sym_match_statement, STATE 925), (sym_for_statement, STATE 925),
    (sym_while_statement, STATE 925), (sym_try_statement, STATE 925),
    (sym_with_statement, STATE 925), (sym_function_definition, STATE 925),
    (sym_global_statement, STATE 11814), (sym_nonlocal_statement, STATE 11814),
    (sym_exec_statement, STATE 11814), (sym_type_alias_statement, STATE 11814),
    (sym_parameterized_alias_statement, STATE 11814), (sym_class_definition, STATE 925),
    (sym_trait_definition, STATE 925), (sym_decorated_definition, STATE 925),
    (sym_decorator, STATE 3670), (sym_block, STATE 6275), (sym_pattern, STATE 8086),
    (sym_tuple_pattern, STATE 8101), (sym_list_pattern, STATE 8101),
    (sym_list_splat_pattern, STATE 6819), (sym_as_pattern, STATE 7969),
    (sym_expression, STATE 9883), (sym_primary_expression, STATE 7326),
    (sym_comptime_expression, STATE 7017), (sym_transfer_expression, STATE 7017),
    (sym_not_operator, STATE 7969), (sym_boolean_operator, STATE 7969),
    (sym_binary_operator, STATE 7017), (sym_unary_operator, STATE 7017),
    (sym_comparison_operator, STATE 7969), (sym_lambda, STATE 7969),
    (sym_assignment, STATE 12425), (sym_augmented_assignment, STATE 12425),
    (sym_pattern_list, STATE 8578), (sym_yield, STATE 12425), (sym_attribute, STATE 6836),
    (sym_subscript, STATE 6838), (sym_call, STATE 6845), (sym_mlir_type, STATE 7017),
    (sym_list, STATE 7017), (sym_set, STATE 7017), (sym_tuple, STATE 7017),
    (sym_dictionary, STATE 7017), (sym_struct_literal, STATE 7017),
    (sym_list_comprehension, STATE 7017), (sym_dictionary_comprehension, STATE 7017),
    (sym_set_comprehension, STATE 7017), (sym_generator_expression, STATE 7017),
    (sym_parenthesized_expression, STATE 7017), (sym_conditional_expression, STATE 7969),
    (sym_concatenated_string, STATE 7017), (sym_string, STATE 6751), (sym_await, STATE 7017),
    (aux_sym_module_repeat1, STATE 925), (aux_sym_decorated_definition_repeat1, STATE 3670),
    (sym_identifier, ACTIONS 9), (anon_sym_import, ACTIONS 11), (anon_sym_from, ACTIONS 13),
    (anon_sym_LPAREN, ACTIONS 15), (anon_sym_STAR, ACTIONS 17), (anon_sym_print, ACTIONS 19),
    (anon_sym_comptime, ACTIONS 99), (anon_sym_assert, ACTIONS 23),
    (anon_sym___comptime_assert, ACTIONS 25), (anon_sym_return, ACTIONS 27),
    (anon_sym_del, ACTIONS 29), (anon_sym_raise, ACTIONS 31), (anon_sym_pass, ACTIONS 33),
    (anon_sym_break, ACTIONS 35), (anon_sym_continue, ACTIONS 37),
    (anon_sym___extension, ACTIONS 101), (anon_sym___mlir_region, ACTIONS 103),
    (anon_sym_if, ACTIONS 105), (anon_sym_match, ACTIONS 107), (anon_sym_async, ACTIONS 109),
    (anon_sym_for, ACTIONS 111), (anon_sym_while, ACTIONS 113), (anon_sym_try, ACTIONS 115),
    (anon_sym_with, ACTIONS 117), (anon_sym_def, ACTIONS 119), (anon_sym_fn, ACTIONS 119),
    (anon_sym_LBRACK, ACTIONS 59), (anon_sym_LBRACE, ACTIONS 61), (anon_sym_global, ACTIONS 63),
    (anon_sym_nonlocal, ACTIONS 65), (anon_sym_exec, ACTIONS 67), (anon_sym_type, ACTIONS 69),
    (anon_sym_class, ACTIONS 121), (anon_sym_struct, ACTIONS 121), (anon_sym_mut, ACTIONS 73),
    (anon_sym_out, ACTIONS 73), (anon_sym_trait, ACTIONS 123), (anon_sym_AT, ACTIONS 77),
    (anon_sym_DASH, ACTIONS 79), (anon_sym_PLUS, ACTIONS 79), (anon_sym_ref, ACTIONS 81),
    (anon_sym_var, ACTIONS 81), (anon_sym_not, ACTIONS 83), (anon_sym_TILDE, ACTIONS 79),
    (anon_sym_lambda, ACTIONS 85), (anon_sym_yield, ACTIONS 87), (sym_ellipsis, ACTIONS 89),
    (anon_sym___mlir_type, ACTIONS 91), (sym_integer, ACTIONS 93), (sym_float, ACTIONS 89),
    (anon_sym_await, ACTIONS 95), (sym_true, ACTIONS 93), (sym_false, ACTIONS 93),
    (sym_none, ACTIONS 93), (sym_comment, ACTIONS 3), (sym_line_continuation, ACTIONS 3),
    (sym__dedent, ACTIONS 129), (sym_string_start, ACTIONS 97)]"

definition parse_table_364 :: "(nat \<times> nat) list" where "parse_table_364 = [
    (sym__statement, STATE 925), (sym__simple_statements, STATE 925),
    (sym_import_statement, STATE 11814), (sym_future_import_statement, STATE 11814),
    (sym_import_from_statement, STATE 11814), (sym_print_statement, STATE 11814),
    (sym_assert_statement, STATE 11814), (sym_comptime_assert_statement, STATE 11814),
    (sym_expression_statement, STATE 11814), (sym_tuple_expression, STATE 12425),
    (sym_named_expression, STATE 7969), (sym__named_expression_lhs, STATE 12752),
    (sym_return_statement, STATE 11814), (sym_delete_statement, STATE 11814),
    (sym_raise_statement, STATE 11814), (sym_pass_statement, STATE 11814),
    (sym_break_statement, STATE 11814), (sym_continue_statement, STATE 11814),
    (sym_extension_definition, STATE 925), (sym_mlir_region, STATE 925),
    (sym_comptime_statement, STATE 925), (sym_if_statement, STATE 925),
    (sym_match_statement, STATE 925), (sym_for_statement, STATE 925),
    (sym_while_statement, STATE 925), (sym_try_statement, STATE 925),
    (sym_with_statement, STATE 925), (sym_function_definition, STATE 925),
    (sym_global_statement, STATE 11814), (sym_nonlocal_statement, STATE 11814),
    (sym_exec_statement, STATE 11814), (sym_type_alias_statement, STATE 11814),
    (sym_parameterized_alias_statement, STATE 11814), (sym_class_definition, STATE 925),
    (sym_trait_definition, STATE 925), (sym_decorated_definition, STATE 925),
    (sym_decorator, STATE 3670), (sym_block, STATE 6284), (sym_pattern, STATE 8086),
    (sym_tuple_pattern, STATE 8101), (sym_list_pattern, STATE 8101),
    (sym_list_splat_pattern, STATE 6819), (sym_as_pattern, STATE 7969),
    (sym_expression, STATE 9883), (sym_primary_expression, STATE 7326),
    (sym_comptime_expression, STATE 7017), (sym_transfer_expression, STATE 7017),
    (sym_not_operator, STATE 7969), (sym_boolean_operator, STATE 7969),
    (sym_binary_operator, STATE 7017), (sym_unary_operator, STATE 7017),
    (sym_comparison_operator, STATE 7969), (sym_lambda, STATE 7969),
    (sym_assignment, STATE 12425), (sym_augmented_assignment, STATE 12425),
    (sym_pattern_list, STATE 8578), (sym_yield, STATE 12425), (sym_attribute, STATE 6836),
    (sym_subscript, STATE 6838), (sym_call, STATE 6845), (sym_mlir_type, STATE 7017),
    (sym_list, STATE 7017), (sym_set, STATE 7017), (sym_tuple, STATE 7017),
    (sym_dictionary, STATE 7017), (sym_struct_literal, STATE 7017),
    (sym_list_comprehension, STATE 7017), (sym_dictionary_comprehension, STATE 7017),
    (sym_set_comprehension, STATE 7017), (sym_generator_expression, STATE 7017),
    (sym_parenthesized_expression, STATE 7017), (sym_conditional_expression, STATE 7969),
    (sym_concatenated_string, STATE 7017), (sym_string, STATE 6751), (sym_await, STATE 7017),
    (aux_sym_module_repeat1, STATE 925), (aux_sym_decorated_definition_repeat1, STATE 3670),
    (sym_identifier, ACTIONS 9), (anon_sym_import, ACTIONS 11), (anon_sym_from, ACTIONS 13),
    (anon_sym_LPAREN, ACTIONS 15), (anon_sym_STAR, ACTIONS 17), (anon_sym_print, ACTIONS 19),
    (anon_sym_comptime, ACTIONS 99), (anon_sym_assert, ACTIONS 23),
    (anon_sym___comptime_assert, ACTIONS 25), (anon_sym_return, ACTIONS 27),
    (anon_sym_del, ACTIONS 29), (anon_sym_raise, ACTIONS 31), (anon_sym_pass, ACTIONS 33),
    (anon_sym_break, ACTIONS 35), (anon_sym_continue, ACTIONS 37),
    (anon_sym___extension, ACTIONS 101), (anon_sym___mlir_region, ACTIONS 103),
    (anon_sym_if, ACTIONS 105), (anon_sym_match, ACTIONS 107), (anon_sym_async, ACTIONS 109),
    (anon_sym_for, ACTIONS 111), (anon_sym_while, ACTIONS 113), (anon_sym_try, ACTIONS 115),
    (anon_sym_with, ACTIONS 117), (anon_sym_def, ACTIONS 119), (anon_sym_fn, ACTIONS 119),
    (anon_sym_LBRACK, ACTIONS 59), (anon_sym_LBRACE, ACTIONS 61), (anon_sym_global, ACTIONS 63),
    (anon_sym_nonlocal, ACTIONS 65), (anon_sym_exec, ACTIONS 67), (anon_sym_type, ACTIONS 69),
    (anon_sym_class, ACTIONS 121), (anon_sym_struct, ACTIONS 121), (anon_sym_mut, ACTIONS 73),
    (anon_sym_out, ACTIONS 73), (anon_sym_trait, ACTIONS 123), (anon_sym_AT, ACTIONS 77),
    (anon_sym_DASH, ACTIONS 79), (anon_sym_PLUS, ACTIONS 79), (anon_sym_ref, ACTIONS 81),
    (anon_sym_var, ACTIONS 81), (anon_sym_not, ACTIONS 83), (anon_sym_TILDE, ACTIONS 79),
    (anon_sym_lambda, ACTIONS 85), (anon_sym_yield, ACTIONS 87), (sym_ellipsis, ACTIONS 89),
    (anon_sym___mlir_type, ACTIONS 91), (sym_integer, ACTIONS 93), (sym_float, ACTIONS 89),
    (anon_sym_await, ACTIONS 95), (sym_true, ACTIONS 93), (sym_false, ACTIONS 93),
    (sym_none, ACTIONS 93), (sym_comment, ACTIONS 3), (sym_line_continuation, ACTIONS 3),
    (sym__dedent, ACTIONS 129), (sym_string_start, ACTIONS 97)]"

definition parse_table_365 :: "(nat \<times> nat) list" where "parse_table_365 = [
    (sym__statement, STATE 925), (sym__simple_statements, STATE 925),
    (sym_import_statement, STATE 11814), (sym_future_import_statement, STATE 11814),
    (sym_import_from_statement, STATE 11814), (sym_print_statement, STATE 11814),
    (sym_assert_statement, STATE 11814), (sym_comptime_assert_statement, STATE 11814),
    (sym_expression_statement, STATE 11814), (sym_tuple_expression, STATE 12425),
    (sym_named_expression, STATE 7969), (sym__named_expression_lhs, STATE 12752),
    (sym_return_statement, STATE 11814), (sym_delete_statement, STATE 11814),
    (sym_raise_statement, STATE 11814), (sym_pass_statement, STATE 11814),
    (sym_break_statement, STATE 11814), (sym_continue_statement, STATE 11814),
    (sym_extension_definition, STATE 925), (sym_mlir_region, STATE 925),
    (sym_comptime_statement, STATE 925), (sym_if_statement, STATE 925),
    (sym_match_statement, STATE 925), (sym_for_statement, STATE 925),
    (sym_while_statement, STATE 925), (sym_try_statement, STATE 925),
    (sym_with_statement, STATE 925), (sym_function_definition, STATE 925),
    (sym_global_statement, STATE 11814), (sym_nonlocal_statement, STATE 11814),
    (sym_exec_statement, STATE 11814), (sym_type_alias_statement, STATE 11814),
    (sym_parameterized_alias_statement, STATE 11814), (sym_class_definition, STATE 925),
    (sym_trait_definition, STATE 925), (sym_decorated_definition, STATE 925),
    (sym_decorator, STATE 3670), (sym_block, STATE 6286), (sym_pattern, STATE 8086),
    (sym_tuple_pattern, STATE 8101), (sym_list_pattern, STATE 8101),
    (sym_list_splat_pattern, STATE 6819), (sym_as_pattern, STATE 7969),
    (sym_expression, STATE 9883), (sym_primary_expression, STATE 7326),
    (sym_comptime_expression, STATE 7017), (sym_transfer_expression, STATE 7017),
    (sym_not_operator, STATE 7969), (sym_boolean_operator, STATE 7969),
    (sym_binary_operator, STATE 7017), (sym_unary_operator, STATE 7017),
    (sym_comparison_operator, STATE 7969), (sym_lambda, STATE 7969),
    (sym_assignment, STATE 12425), (sym_augmented_assignment, STATE 12425),
    (sym_pattern_list, STATE 8578), (sym_yield, STATE 12425), (sym_attribute, STATE 6836),
    (sym_subscript, STATE 6838), (sym_call, STATE 6845), (sym_mlir_type, STATE 7017),
    (sym_list, STATE 7017), (sym_set, STATE 7017), (sym_tuple, STATE 7017),
    (sym_dictionary, STATE 7017), (sym_struct_literal, STATE 7017),
    (sym_list_comprehension, STATE 7017), (sym_dictionary_comprehension, STATE 7017),
    (sym_set_comprehension, STATE 7017), (sym_generator_expression, STATE 7017),
    (sym_parenthesized_expression, STATE 7017), (sym_conditional_expression, STATE 7969),
    (sym_concatenated_string, STATE 7017), (sym_string, STATE 6751), (sym_await, STATE 7017),
    (aux_sym_module_repeat1, STATE 925), (aux_sym_decorated_definition_repeat1, STATE 3670),
    (sym_identifier, ACTIONS 9), (anon_sym_import, ACTIONS 11), (anon_sym_from, ACTIONS 13),
    (anon_sym_LPAREN, ACTIONS 15), (anon_sym_STAR, ACTIONS 17), (anon_sym_print, ACTIONS 19),
    (anon_sym_comptime, ACTIONS 99), (anon_sym_assert, ACTIONS 23),
    (anon_sym___comptime_assert, ACTIONS 25), (anon_sym_return, ACTIONS 27),
    (anon_sym_del, ACTIONS 29), (anon_sym_raise, ACTIONS 31), (anon_sym_pass, ACTIONS 33),
    (anon_sym_break, ACTIONS 35), (anon_sym_continue, ACTIONS 37),
    (anon_sym___extension, ACTIONS 101), (anon_sym___mlir_region, ACTIONS 103),
    (anon_sym_if, ACTIONS 105), (anon_sym_match, ACTIONS 107), (anon_sym_async, ACTIONS 109),
    (anon_sym_for, ACTIONS 111), (anon_sym_while, ACTIONS 113), (anon_sym_try, ACTIONS 115),
    (anon_sym_with, ACTIONS 117), (anon_sym_def, ACTIONS 119), (anon_sym_fn, ACTIONS 119),
    (anon_sym_LBRACK, ACTIONS 59), (anon_sym_LBRACE, ACTIONS 61), (anon_sym_global, ACTIONS 63),
    (anon_sym_nonlocal, ACTIONS 65), (anon_sym_exec, ACTIONS 67), (anon_sym_type, ACTIONS 69),
    (anon_sym_class, ACTIONS 121), (anon_sym_struct, ACTIONS 121), (anon_sym_mut, ACTIONS 73),
    (anon_sym_out, ACTIONS 73), (anon_sym_trait, ACTIONS 123), (anon_sym_AT, ACTIONS 77),
    (anon_sym_DASH, ACTIONS 79), (anon_sym_PLUS, ACTIONS 79), (anon_sym_ref, ACTIONS 81),
    (anon_sym_var, ACTIONS 81), (anon_sym_not, ACTIONS 83), (anon_sym_TILDE, ACTIONS 79),
    (anon_sym_lambda, ACTIONS 85), (anon_sym_yield, ACTIONS 87), (sym_ellipsis, ACTIONS 89),
    (anon_sym___mlir_type, ACTIONS 91), (sym_integer, ACTIONS 93), (sym_float, ACTIONS 89),
    (anon_sym_await, ACTIONS 95), (sym_true, ACTIONS 93), (sym_false, ACTIONS 93),
    (sym_none, ACTIONS 93), (sym_comment, ACTIONS 3), (sym_line_continuation, ACTIONS 3),
    (sym__dedent, ACTIONS 129), (sym_string_start, ACTIONS 97)]"

definition parse_table_366 :: "(nat \<times> nat) list" where "parse_table_366 = [
    (sym__statement, STATE 925), (sym__simple_statements, STATE 925),
    (sym_import_statement, STATE 11814), (sym_future_import_statement, STATE 11814),
    (sym_import_from_statement, STATE 11814), (sym_print_statement, STATE 11814),
    (sym_assert_statement, STATE 11814), (sym_comptime_assert_statement, STATE 11814),
    (sym_expression_statement, STATE 11814), (sym_tuple_expression, STATE 12425),
    (sym_named_expression, STATE 7969), (sym__named_expression_lhs, STATE 12752),
    (sym_return_statement, STATE 11814), (sym_delete_statement, STATE 11814),
    (sym_raise_statement, STATE 11814), (sym_pass_statement, STATE 11814),
    (sym_break_statement, STATE 11814), (sym_continue_statement, STATE 11814),
    (sym_extension_definition, STATE 925), (sym_mlir_region, STATE 925),
    (sym_comptime_statement, STATE 925), (sym_if_statement, STATE 925),
    (sym_match_statement, STATE 925), (sym_for_statement, STATE 925),
    (sym_while_statement, STATE 925), (sym_try_statement, STATE 925),
    (sym_with_statement, STATE 925), (sym_function_definition, STATE 925),
    (sym_global_statement, STATE 11814), (sym_nonlocal_statement, STATE 11814),
    (sym_exec_statement, STATE 11814), (sym_type_alias_statement, STATE 11814),
    (sym_parameterized_alias_statement, STATE 11814), (sym_class_definition, STATE 925),
    (sym_trait_definition, STATE 925), (sym_decorated_definition, STATE 925),
    (sym_decorator, STATE 3670), (sym_block, STATE 6297), (sym_pattern, STATE 8086),
    (sym_tuple_pattern, STATE 8101), (sym_list_pattern, STATE 8101),
    (sym_list_splat_pattern, STATE 6819), (sym_as_pattern, STATE 7969),
    (sym_expression, STATE 9883), (sym_primary_expression, STATE 7326),
    (sym_comptime_expression, STATE 7017), (sym_transfer_expression, STATE 7017),
    (sym_not_operator, STATE 7969), (sym_boolean_operator, STATE 7969),
    (sym_binary_operator, STATE 7017), (sym_unary_operator, STATE 7017),
    (sym_comparison_operator, STATE 7969), (sym_lambda, STATE 7969),
    (sym_assignment, STATE 12425), (sym_augmented_assignment, STATE 12425),
    (sym_pattern_list, STATE 8578), (sym_yield, STATE 12425), (sym_attribute, STATE 6836),
    (sym_subscript, STATE 6838), (sym_call, STATE 6845), (sym_mlir_type, STATE 7017),
    (sym_list, STATE 7017), (sym_set, STATE 7017), (sym_tuple, STATE 7017),
    (sym_dictionary, STATE 7017), (sym_struct_literal, STATE 7017),
    (sym_list_comprehension, STATE 7017), (sym_dictionary_comprehension, STATE 7017),
    (sym_set_comprehension, STATE 7017), (sym_generator_expression, STATE 7017),
    (sym_parenthesized_expression, STATE 7017), (sym_conditional_expression, STATE 7969),
    (sym_concatenated_string, STATE 7017), (sym_string, STATE 6751), (sym_await, STATE 7017),
    (aux_sym_module_repeat1, STATE 925), (aux_sym_decorated_definition_repeat1, STATE 3670),
    (sym_identifier, ACTIONS 9), (anon_sym_import, ACTIONS 11), (anon_sym_from, ACTIONS 13),
    (anon_sym_LPAREN, ACTIONS 15), (anon_sym_STAR, ACTIONS 17), (anon_sym_print, ACTIONS 19),
    (anon_sym_comptime, ACTIONS 99), (anon_sym_assert, ACTIONS 23),
    (anon_sym___comptime_assert, ACTIONS 25), (anon_sym_return, ACTIONS 27),
    (anon_sym_del, ACTIONS 29), (anon_sym_raise, ACTIONS 31), (anon_sym_pass, ACTIONS 33),
    (anon_sym_break, ACTIONS 35), (anon_sym_continue, ACTIONS 37),
    (anon_sym___extension, ACTIONS 101), (anon_sym___mlir_region, ACTIONS 103),
    (anon_sym_if, ACTIONS 105), (anon_sym_match, ACTIONS 107), (anon_sym_async, ACTIONS 109),
    (anon_sym_for, ACTIONS 111), (anon_sym_while, ACTIONS 113), (anon_sym_try, ACTIONS 115),
    (anon_sym_with, ACTIONS 117), (anon_sym_def, ACTIONS 119), (anon_sym_fn, ACTIONS 119),
    (anon_sym_LBRACK, ACTIONS 59), (anon_sym_LBRACE, ACTIONS 61), (anon_sym_global, ACTIONS 63),
    (anon_sym_nonlocal, ACTIONS 65), (anon_sym_exec, ACTIONS 67), (anon_sym_type, ACTIONS 69),
    (anon_sym_class, ACTIONS 121), (anon_sym_struct, ACTIONS 121), (anon_sym_mut, ACTIONS 73),
    (anon_sym_out, ACTIONS 73), (anon_sym_trait, ACTIONS 123), (anon_sym_AT, ACTIONS 77),
    (anon_sym_DASH, ACTIONS 79), (anon_sym_PLUS, ACTIONS 79), (anon_sym_ref, ACTIONS 81),
    (anon_sym_var, ACTIONS 81), (anon_sym_not, ACTIONS 83), (anon_sym_TILDE, ACTIONS 79),
    (anon_sym_lambda, ACTIONS 85), (anon_sym_yield, ACTIONS 87), (sym_ellipsis, ACTIONS 89),
    (anon_sym___mlir_type, ACTIONS 91), (sym_integer, ACTIONS 93), (sym_float, ACTIONS 89),
    (anon_sym_await, ACTIONS 95), (sym_true, ACTIONS 93), (sym_false, ACTIONS 93),
    (sym_none, ACTIONS 93), (sym_comment, ACTIONS 3), (sym_line_continuation, ACTIONS 3),
    (sym__dedent, ACTIONS 129), (sym_string_start, ACTIONS 97)]"

definition parse_table_367 :: "(nat \<times> nat) list" where "parse_table_367 = [
    (sym__statement, STATE 925), (sym__simple_statements, STATE 925),
    (sym_import_statement, STATE 11814), (sym_future_import_statement, STATE 11814),
    (sym_import_from_statement, STATE 11814), (sym_print_statement, STATE 11814),
    (sym_assert_statement, STATE 11814), (sym_comptime_assert_statement, STATE 11814),
    (sym_expression_statement, STATE 11814), (sym_tuple_expression, STATE 12425),
    (sym_named_expression, STATE 7969), (sym__named_expression_lhs, STATE 12752),
    (sym_return_statement, STATE 11814), (sym_delete_statement, STATE 11814),
    (sym_raise_statement, STATE 11814), (sym_pass_statement, STATE 11814),
    (sym_break_statement, STATE 11814), (sym_continue_statement, STATE 11814),
    (sym_extension_definition, STATE 925), (sym_mlir_region, STATE 925),
    (sym_comptime_statement, STATE 925), (sym_if_statement, STATE 925),
    (sym_match_statement, STATE 925), (sym_for_statement, STATE 925),
    (sym_while_statement, STATE 925), (sym_try_statement, STATE 925),
    (sym_with_statement, STATE 925), (sym_function_definition, STATE 925),
    (sym_global_statement, STATE 11814), (sym_nonlocal_statement, STATE 11814),
    (sym_exec_statement, STATE 11814), (sym_type_alias_statement, STATE 11814),
    (sym_parameterized_alias_statement, STATE 11814), (sym_class_definition, STATE 925),
    (sym_trait_definition, STATE 925), (sym_decorated_definition, STATE 925),
    (sym_decorator, STATE 3670), (sym_block, STATE 6308), (sym_pattern, STATE 8086),
    (sym_tuple_pattern, STATE 8101), (sym_list_pattern, STATE 8101),
    (sym_list_splat_pattern, STATE 6819), (sym_as_pattern, STATE 7969),
    (sym_expression, STATE 9883), (sym_primary_expression, STATE 7326),
    (sym_comptime_expression, STATE 7017), (sym_transfer_expression, STATE 7017),
    (sym_not_operator, STATE 7969), (sym_boolean_operator, STATE 7969),
    (sym_binary_operator, STATE 7017), (sym_unary_operator, STATE 7017),
    (sym_comparison_operator, STATE 7969), (sym_lambda, STATE 7969),
    (sym_assignment, STATE 12425), (sym_augmented_assignment, STATE 12425),
    (sym_pattern_list, STATE 8578), (sym_yield, STATE 12425), (sym_attribute, STATE 6836),
    (sym_subscript, STATE 6838), (sym_call, STATE 6845), (sym_mlir_type, STATE 7017),
    (sym_list, STATE 7017), (sym_set, STATE 7017), (sym_tuple, STATE 7017),
    (sym_dictionary, STATE 7017), (sym_struct_literal, STATE 7017),
    (sym_list_comprehension, STATE 7017), (sym_dictionary_comprehension, STATE 7017),
    (sym_set_comprehension, STATE 7017), (sym_generator_expression, STATE 7017),
    (sym_parenthesized_expression, STATE 7017), (sym_conditional_expression, STATE 7969),
    (sym_concatenated_string, STATE 7017), (sym_string, STATE 6751), (sym_await, STATE 7017),
    (aux_sym_module_repeat1, STATE 925), (aux_sym_decorated_definition_repeat1, STATE 3670),
    (sym_identifier, ACTIONS 9), (anon_sym_import, ACTIONS 11), (anon_sym_from, ACTIONS 13),
    (anon_sym_LPAREN, ACTIONS 15), (anon_sym_STAR, ACTIONS 17), (anon_sym_print, ACTIONS 19),
    (anon_sym_comptime, ACTIONS 99), (anon_sym_assert, ACTIONS 23),
    (anon_sym___comptime_assert, ACTIONS 25), (anon_sym_return, ACTIONS 27),
    (anon_sym_del, ACTIONS 29), (anon_sym_raise, ACTIONS 31), (anon_sym_pass, ACTIONS 33),
    (anon_sym_break, ACTIONS 35), (anon_sym_continue, ACTIONS 37),
    (anon_sym___extension, ACTIONS 101), (anon_sym___mlir_region, ACTIONS 103),
    (anon_sym_if, ACTIONS 105), (anon_sym_match, ACTIONS 107), (anon_sym_async, ACTIONS 109),
    (anon_sym_for, ACTIONS 111), (anon_sym_while, ACTIONS 113), (anon_sym_try, ACTIONS 115),
    (anon_sym_with, ACTIONS 117), (anon_sym_def, ACTIONS 119), (anon_sym_fn, ACTIONS 119),
    (anon_sym_LBRACK, ACTIONS 59), (anon_sym_LBRACE, ACTIONS 61), (anon_sym_global, ACTIONS 63),
    (anon_sym_nonlocal, ACTIONS 65), (anon_sym_exec, ACTIONS 67), (anon_sym_type, ACTIONS 69),
    (anon_sym_class, ACTIONS 121), (anon_sym_struct, ACTIONS 121), (anon_sym_mut, ACTIONS 73),
    (anon_sym_out, ACTIONS 73), (anon_sym_trait, ACTIONS 123), (anon_sym_AT, ACTIONS 77),
    (anon_sym_DASH, ACTIONS 79), (anon_sym_PLUS, ACTIONS 79), (anon_sym_ref, ACTIONS 81),
    (anon_sym_var, ACTIONS 81), (anon_sym_not, ACTIONS 83), (anon_sym_TILDE, ACTIONS 79),
    (anon_sym_lambda, ACTIONS 85), (anon_sym_yield, ACTIONS 87), (sym_ellipsis, ACTIONS 89),
    (anon_sym___mlir_type, ACTIONS 91), (sym_integer, ACTIONS 93), (sym_float, ACTIONS 89),
    (anon_sym_await, ACTIONS 95), (sym_true, ACTIONS 93), (sym_false, ACTIONS 93),
    (sym_none, ACTIONS 93), (sym_comment, ACTIONS 3), (sym_line_continuation, ACTIONS 3),
    (sym__dedent, ACTIONS 129), (sym_string_start, ACTIONS 97)]"

definition parse_table_368 :: "(nat \<times> nat) list" where "parse_table_368 = [
    (sym__statement, STATE 925), (sym__simple_statements, STATE 925),
    (sym_import_statement, STATE 11814), (sym_future_import_statement, STATE 11814),
    (sym_import_from_statement, STATE 11814), (sym_print_statement, STATE 11814),
    (sym_assert_statement, STATE 11814), (sym_comptime_assert_statement, STATE 11814),
    (sym_expression_statement, STATE 11814), (sym_tuple_expression, STATE 12425),
    (sym_named_expression, STATE 7969), (sym__named_expression_lhs, STATE 12752),
    (sym_return_statement, STATE 11814), (sym_delete_statement, STATE 11814),
    (sym_raise_statement, STATE 11814), (sym_pass_statement, STATE 11814),
    (sym_break_statement, STATE 11814), (sym_continue_statement, STATE 11814),
    (sym_extension_definition, STATE 925), (sym_mlir_region, STATE 925),
    (sym_comptime_statement, STATE 925), (sym_if_statement, STATE 925),
    (sym_match_statement, STATE 925), (sym_for_statement, STATE 925),
    (sym_while_statement, STATE 925), (sym_try_statement, STATE 925),
    (sym_with_statement, STATE 925), (sym_function_definition, STATE 925),
    (sym_global_statement, STATE 11814), (sym_nonlocal_statement, STATE 11814),
    (sym_exec_statement, STATE 11814), (sym_type_alias_statement, STATE 11814),
    (sym_parameterized_alias_statement, STATE 11814), (sym_class_definition, STATE 925),
    (sym_trait_definition, STATE 925), (sym_decorated_definition, STATE 925),
    (sym_decorator, STATE 3670), (sym_block, STATE 6323), (sym_pattern, STATE 8086),
    (sym_tuple_pattern, STATE 8101), (sym_list_pattern, STATE 8101),
    (sym_list_splat_pattern, STATE 6819), (sym_as_pattern, STATE 7969),
    (sym_expression, STATE 9883), (sym_primary_expression, STATE 7326),
    (sym_comptime_expression, STATE 7017), (sym_transfer_expression, STATE 7017),
    (sym_not_operator, STATE 7969), (sym_boolean_operator, STATE 7969),
    (sym_binary_operator, STATE 7017), (sym_unary_operator, STATE 7017),
    (sym_comparison_operator, STATE 7969), (sym_lambda, STATE 7969),
    (sym_assignment, STATE 12425), (sym_augmented_assignment, STATE 12425),
    (sym_pattern_list, STATE 8578), (sym_yield, STATE 12425), (sym_attribute, STATE 6836),
    (sym_subscript, STATE 6838), (sym_call, STATE 6845), (sym_mlir_type, STATE 7017),
    (sym_list, STATE 7017), (sym_set, STATE 7017), (sym_tuple, STATE 7017),
    (sym_dictionary, STATE 7017), (sym_struct_literal, STATE 7017),
    (sym_list_comprehension, STATE 7017), (sym_dictionary_comprehension, STATE 7017),
    (sym_set_comprehension, STATE 7017), (sym_generator_expression, STATE 7017),
    (sym_parenthesized_expression, STATE 7017), (sym_conditional_expression, STATE 7969),
    (sym_concatenated_string, STATE 7017), (sym_string, STATE 6751), (sym_await, STATE 7017),
    (aux_sym_module_repeat1, STATE 925), (aux_sym_decorated_definition_repeat1, STATE 3670),
    (sym_identifier, ACTIONS 9), (anon_sym_import, ACTIONS 11), (anon_sym_from, ACTIONS 13),
    (anon_sym_LPAREN, ACTIONS 15), (anon_sym_STAR, ACTIONS 17), (anon_sym_print, ACTIONS 19),
    (anon_sym_comptime, ACTIONS 99), (anon_sym_assert, ACTIONS 23),
    (anon_sym___comptime_assert, ACTIONS 25), (anon_sym_return, ACTIONS 27),
    (anon_sym_del, ACTIONS 29), (anon_sym_raise, ACTIONS 31), (anon_sym_pass, ACTIONS 33),
    (anon_sym_break, ACTIONS 35), (anon_sym_continue, ACTIONS 37),
    (anon_sym___extension, ACTIONS 101), (anon_sym___mlir_region, ACTIONS 103),
    (anon_sym_if, ACTIONS 105), (anon_sym_match, ACTIONS 107), (anon_sym_async, ACTIONS 109),
    (anon_sym_for, ACTIONS 111), (anon_sym_while, ACTIONS 113), (anon_sym_try, ACTIONS 115),
    (anon_sym_with, ACTIONS 117), (anon_sym_def, ACTIONS 119), (anon_sym_fn, ACTIONS 119),
    (anon_sym_LBRACK, ACTIONS 59), (anon_sym_LBRACE, ACTIONS 61), (anon_sym_global, ACTIONS 63),
    (anon_sym_nonlocal, ACTIONS 65), (anon_sym_exec, ACTIONS 67), (anon_sym_type, ACTIONS 69),
    (anon_sym_class, ACTIONS 121), (anon_sym_struct, ACTIONS 121), (anon_sym_mut, ACTIONS 73),
    (anon_sym_out, ACTIONS 73), (anon_sym_trait, ACTIONS 123), (anon_sym_AT, ACTIONS 77),
    (anon_sym_DASH, ACTIONS 79), (anon_sym_PLUS, ACTIONS 79), (anon_sym_ref, ACTIONS 81),
    (anon_sym_var, ACTIONS 81), (anon_sym_not, ACTIONS 83), (anon_sym_TILDE, ACTIONS 79),
    (anon_sym_lambda, ACTIONS 85), (anon_sym_yield, ACTIONS 87), (sym_ellipsis, ACTIONS 89),
    (anon_sym___mlir_type, ACTIONS 91), (sym_integer, ACTIONS 93), (sym_float, ACTIONS 89),
    (anon_sym_await, ACTIONS 95), (sym_true, ACTIONS 93), (sym_false, ACTIONS 93),
    (sym_none, ACTIONS 93), (sym_comment, ACTIONS 3), (sym_line_continuation, ACTIONS 3),
    (sym__dedent, ACTIONS 129), (sym_string_start, ACTIONS 97)]"

definition parse_table_369 :: "(nat \<times> nat) list" where "parse_table_369 = [
    (sym__statement, STATE 925), (sym__simple_statements, STATE 925),
    (sym_import_statement, STATE 11814), (sym_future_import_statement, STATE 11814),
    (sym_import_from_statement, STATE 11814), (sym_print_statement, STATE 11814),
    (sym_assert_statement, STATE 11814), (sym_comptime_assert_statement, STATE 11814),
    (sym_expression_statement, STATE 11814), (sym_tuple_expression, STATE 12425),
    (sym_named_expression, STATE 7969), (sym__named_expression_lhs, STATE 12752),
    (sym_return_statement, STATE 11814), (sym_delete_statement, STATE 11814),
    (sym_raise_statement, STATE 11814), (sym_pass_statement, STATE 11814),
    (sym_break_statement, STATE 11814), (sym_continue_statement, STATE 11814),
    (sym_extension_definition, STATE 925), (sym_mlir_region, STATE 925),
    (sym_comptime_statement, STATE 925), (sym_if_statement, STATE 925),
    (sym_match_statement, STATE 925), (sym_for_statement, STATE 925),
    (sym_while_statement, STATE 925), (sym_try_statement, STATE 925),
    (sym_with_statement, STATE 925), (sym_function_definition, STATE 925),
    (sym_global_statement, STATE 11814), (sym_nonlocal_statement, STATE 11814),
    (sym_exec_statement, STATE 11814), (sym_type_alias_statement, STATE 11814),
    (sym_parameterized_alias_statement, STATE 11814), (sym_class_definition, STATE 925),
    (sym_trait_definition, STATE 925), (sym_decorated_definition, STATE 925),
    (sym_decorator, STATE 3670), (sym_block, STATE 6329), (sym_pattern, STATE 8086),
    (sym_tuple_pattern, STATE 8101), (sym_list_pattern, STATE 8101),
    (sym_list_splat_pattern, STATE 6819), (sym_as_pattern, STATE 7969),
    (sym_expression, STATE 9883), (sym_primary_expression, STATE 7326),
    (sym_comptime_expression, STATE 7017), (sym_transfer_expression, STATE 7017),
    (sym_not_operator, STATE 7969), (sym_boolean_operator, STATE 7969),
    (sym_binary_operator, STATE 7017), (sym_unary_operator, STATE 7017),
    (sym_comparison_operator, STATE 7969), (sym_lambda, STATE 7969),
    (sym_assignment, STATE 12425), (sym_augmented_assignment, STATE 12425),
    (sym_pattern_list, STATE 8578), (sym_yield, STATE 12425), (sym_attribute, STATE 6836),
    (sym_subscript, STATE 6838), (sym_call, STATE 6845), (sym_mlir_type, STATE 7017),
    (sym_list, STATE 7017), (sym_set, STATE 7017), (sym_tuple, STATE 7017),
    (sym_dictionary, STATE 7017), (sym_struct_literal, STATE 7017),
    (sym_list_comprehension, STATE 7017), (sym_dictionary_comprehension, STATE 7017),
    (sym_set_comprehension, STATE 7017), (sym_generator_expression, STATE 7017),
    (sym_parenthesized_expression, STATE 7017), (sym_conditional_expression, STATE 7969),
    (sym_concatenated_string, STATE 7017), (sym_string, STATE 6751), (sym_await, STATE 7017),
    (aux_sym_module_repeat1, STATE 925), (aux_sym_decorated_definition_repeat1, STATE 3670),
    (sym_identifier, ACTIONS 9), (anon_sym_import, ACTIONS 11), (anon_sym_from, ACTIONS 13),
    (anon_sym_LPAREN, ACTIONS 15), (anon_sym_STAR, ACTIONS 17), (anon_sym_print, ACTIONS 19),
    (anon_sym_comptime, ACTIONS 99), (anon_sym_assert, ACTIONS 23),
    (anon_sym___comptime_assert, ACTIONS 25), (anon_sym_return, ACTIONS 27),
    (anon_sym_del, ACTIONS 29), (anon_sym_raise, ACTIONS 31), (anon_sym_pass, ACTIONS 33),
    (anon_sym_break, ACTIONS 35), (anon_sym_continue, ACTIONS 37),
    (anon_sym___extension, ACTIONS 101), (anon_sym___mlir_region, ACTIONS 103),
    (anon_sym_if, ACTIONS 105), (anon_sym_match, ACTIONS 107), (anon_sym_async, ACTIONS 109),
    (anon_sym_for, ACTIONS 111), (anon_sym_while, ACTIONS 113), (anon_sym_try, ACTIONS 115),
    (anon_sym_with, ACTIONS 117), (anon_sym_def, ACTIONS 119), (anon_sym_fn, ACTIONS 119),
    (anon_sym_LBRACK, ACTIONS 59), (anon_sym_LBRACE, ACTIONS 61), (anon_sym_global, ACTIONS 63),
    (anon_sym_nonlocal, ACTIONS 65), (anon_sym_exec, ACTIONS 67), (anon_sym_type, ACTIONS 69),
    (anon_sym_class, ACTIONS 121), (anon_sym_struct, ACTIONS 121), (anon_sym_mut, ACTIONS 73),
    (anon_sym_out, ACTIONS 73), (anon_sym_trait, ACTIONS 123), (anon_sym_AT, ACTIONS 77),
    (anon_sym_DASH, ACTIONS 79), (anon_sym_PLUS, ACTIONS 79), (anon_sym_ref, ACTIONS 81),
    (anon_sym_var, ACTIONS 81), (anon_sym_not, ACTIONS 83), (anon_sym_TILDE, ACTIONS 79),
    (anon_sym_lambda, ACTIONS 85), (anon_sym_yield, ACTIONS 87), (sym_ellipsis, ACTIONS 89),
    (anon_sym___mlir_type, ACTIONS 91), (sym_integer, ACTIONS 93), (sym_float, ACTIONS 89),
    (anon_sym_await, ACTIONS 95), (sym_true, ACTIONS 93), (sym_false, ACTIONS 93),
    (sym_none, ACTIONS 93), (sym_comment, ACTIONS 3), (sym_line_continuation, ACTIONS 3),
    (sym__dedent, ACTIONS 129), (sym_string_start, ACTIONS 97)]"

definition parse_table_370 :: "(nat \<times> nat) list" where "parse_table_370 = [
    (sym__statement, STATE 925), (sym__simple_statements, STATE 925),
    (sym_import_statement, STATE 11814), (sym_future_import_statement, STATE 11814),
    (sym_import_from_statement, STATE 11814), (sym_print_statement, STATE 11814),
    (sym_assert_statement, STATE 11814), (sym_comptime_assert_statement, STATE 11814),
    (sym_expression_statement, STATE 11814), (sym_tuple_expression, STATE 12425),
    (sym_named_expression, STATE 7969), (sym__named_expression_lhs, STATE 12752),
    (sym_return_statement, STATE 11814), (sym_delete_statement, STATE 11814),
    (sym_raise_statement, STATE 11814), (sym_pass_statement, STATE 11814),
    (sym_break_statement, STATE 11814), (sym_continue_statement, STATE 11814),
    (sym_extension_definition, STATE 925), (sym_mlir_region, STATE 925),
    (sym_comptime_statement, STATE 925), (sym_if_statement, STATE 925),
    (sym_match_statement, STATE 925), (sym_for_statement, STATE 925),
    (sym_while_statement, STATE 925), (sym_try_statement, STATE 925),
    (sym_with_statement, STATE 925), (sym_function_definition, STATE 925),
    (sym_global_statement, STATE 11814), (sym_nonlocal_statement, STATE 11814),
    (sym_exec_statement, STATE 11814), (sym_type_alias_statement, STATE 11814),
    (sym_parameterized_alias_statement, STATE 11814), (sym_class_definition, STATE 925),
    (sym_trait_definition, STATE 925), (sym_decorated_definition, STATE 925),
    (sym_decorator, STATE 3670), (sym_block, STATE 6331), (sym_pattern, STATE 8086),
    (sym_tuple_pattern, STATE 8101), (sym_list_pattern, STATE 8101),
    (sym_list_splat_pattern, STATE 6819), (sym_as_pattern, STATE 7969),
    (sym_expression, STATE 9883), (sym_primary_expression, STATE 7326),
    (sym_comptime_expression, STATE 7017), (sym_transfer_expression, STATE 7017),
    (sym_not_operator, STATE 7969), (sym_boolean_operator, STATE 7969),
    (sym_binary_operator, STATE 7017), (sym_unary_operator, STATE 7017),
    (sym_comparison_operator, STATE 7969), (sym_lambda, STATE 7969),
    (sym_assignment, STATE 12425), (sym_augmented_assignment, STATE 12425),
    (sym_pattern_list, STATE 8578), (sym_yield, STATE 12425), (sym_attribute, STATE 6836),
    (sym_subscript, STATE 6838), (sym_call, STATE 6845), (sym_mlir_type, STATE 7017),
    (sym_list, STATE 7017), (sym_set, STATE 7017), (sym_tuple, STATE 7017),
    (sym_dictionary, STATE 7017), (sym_struct_literal, STATE 7017),
    (sym_list_comprehension, STATE 7017), (sym_dictionary_comprehension, STATE 7017),
    (sym_set_comprehension, STATE 7017), (sym_generator_expression, STATE 7017),
    (sym_parenthesized_expression, STATE 7017), (sym_conditional_expression, STATE 7969),
    (sym_concatenated_string, STATE 7017), (sym_string, STATE 6751), (sym_await, STATE 7017),
    (aux_sym_module_repeat1, STATE 925), (aux_sym_decorated_definition_repeat1, STATE 3670),
    (sym_identifier, ACTIONS 9), (anon_sym_import, ACTIONS 11), (anon_sym_from, ACTIONS 13),
    (anon_sym_LPAREN, ACTIONS 15), (anon_sym_STAR, ACTIONS 17), (anon_sym_print, ACTIONS 19),
    (anon_sym_comptime, ACTIONS 99), (anon_sym_assert, ACTIONS 23),
    (anon_sym___comptime_assert, ACTIONS 25), (anon_sym_return, ACTIONS 27),
    (anon_sym_del, ACTIONS 29), (anon_sym_raise, ACTIONS 31), (anon_sym_pass, ACTIONS 33),
    (anon_sym_break, ACTIONS 35), (anon_sym_continue, ACTIONS 37),
    (anon_sym___extension, ACTIONS 101), (anon_sym___mlir_region, ACTIONS 103),
    (anon_sym_if, ACTIONS 105), (anon_sym_match, ACTIONS 107), (anon_sym_async, ACTIONS 109),
    (anon_sym_for, ACTIONS 111), (anon_sym_while, ACTIONS 113), (anon_sym_try, ACTIONS 115),
    (anon_sym_with, ACTIONS 117), (anon_sym_def, ACTIONS 119), (anon_sym_fn, ACTIONS 119),
    (anon_sym_LBRACK, ACTIONS 59), (anon_sym_LBRACE, ACTIONS 61), (anon_sym_global, ACTIONS 63),
    (anon_sym_nonlocal, ACTIONS 65), (anon_sym_exec, ACTIONS 67), (anon_sym_type, ACTIONS 69),
    (anon_sym_class, ACTIONS 121), (anon_sym_struct, ACTIONS 121), (anon_sym_mut, ACTIONS 73),
    (anon_sym_out, ACTIONS 73), (anon_sym_trait, ACTIONS 123), (anon_sym_AT, ACTIONS 77),
    (anon_sym_DASH, ACTIONS 79), (anon_sym_PLUS, ACTIONS 79), (anon_sym_ref, ACTIONS 81),
    (anon_sym_var, ACTIONS 81), (anon_sym_not, ACTIONS 83), (anon_sym_TILDE, ACTIONS 79),
    (anon_sym_lambda, ACTIONS 85), (anon_sym_yield, ACTIONS 87), (sym_ellipsis, ACTIONS 89),
    (anon_sym___mlir_type, ACTIONS 91), (sym_integer, ACTIONS 93), (sym_float, ACTIONS 89),
    (anon_sym_await, ACTIONS 95), (sym_true, ACTIONS 93), (sym_false, ACTIONS 93),
    (sym_none, ACTIONS 93), (sym_comment, ACTIONS 3), (sym_line_continuation, ACTIONS 3),
    (sym__dedent, ACTIONS 129), (sym_string_start, ACTIONS 97)]"

definition parse_table_371 :: "(nat \<times> nat) list" where "parse_table_371 = [
    (sym__statement, STATE 925), (sym__simple_statements, STATE 925),
    (sym_import_statement, STATE 11814), (sym_future_import_statement, STATE 11814),
    (sym_import_from_statement, STATE 11814), (sym_print_statement, STATE 11814),
    (sym_assert_statement, STATE 11814), (sym_comptime_assert_statement, STATE 11814),
    (sym_expression_statement, STATE 11814), (sym_tuple_expression, STATE 12425),
    (sym_named_expression, STATE 7969), (sym__named_expression_lhs, STATE 12752),
    (sym_return_statement, STATE 11814), (sym_delete_statement, STATE 11814),
    (sym_raise_statement, STATE 11814), (sym_pass_statement, STATE 11814),
    (sym_break_statement, STATE 11814), (sym_continue_statement, STATE 11814),
    (sym_extension_definition, STATE 925), (sym_mlir_region, STATE 925),
    (sym_comptime_statement, STATE 925), (sym_if_statement, STATE 925),
    (sym_match_statement, STATE 925), (sym_for_statement, STATE 925),
    (sym_while_statement, STATE 925), (sym_try_statement, STATE 925),
    (sym_with_statement, STATE 925), (sym_function_definition, STATE 925),
    (sym_global_statement, STATE 11814), (sym_nonlocal_statement, STATE 11814),
    (sym_exec_statement, STATE 11814), (sym_type_alias_statement, STATE 11814),
    (sym_parameterized_alias_statement, STATE 11814), (sym_class_definition, STATE 925),
    (sym_trait_definition, STATE 925), (sym_decorated_definition, STATE 925),
    (sym_decorator, STATE 3670), (sym_block, STATE 6332), (sym_pattern, STATE 8086),
    (sym_tuple_pattern, STATE 8101), (sym_list_pattern, STATE 8101),
    (sym_list_splat_pattern, STATE 6819), (sym_as_pattern, STATE 7969),
    (sym_expression, STATE 9883), (sym_primary_expression, STATE 7326),
    (sym_comptime_expression, STATE 7017), (sym_transfer_expression, STATE 7017),
    (sym_not_operator, STATE 7969), (sym_boolean_operator, STATE 7969),
    (sym_binary_operator, STATE 7017), (sym_unary_operator, STATE 7017),
    (sym_comparison_operator, STATE 7969), (sym_lambda, STATE 7969),
    (sym_assignment, STATE 12425), (sym_augmented_assignment, STATE 12425),
    (sym_pattern_list, STATE 8578), (sym_yield, STATE 12425), (sym_attribute, STATE 6836),
    (sym_subscript, STATE 6838), (sym_call, STATE 6845), (sym_mlir_type, STATE 7017),
    (sym_list, STATE 7017), (sym_set, STATE 7017), (sym_tuple, STATE 7017),
    (sym_dictionary, STATE 7017), (sym_struct_literal, STATE 7017),
    (sym_list_comprehension, STATE 7017), (sym_dictionary_comprehension, STATE 7017),
    (sym_set_comprehension, STATE 7017), (sym_generator_expression, STATE 7017),
    (sym_parenthesized_expression, STATE 7017), (sym_conditional_expression, STATE 7969),
    (sym_concatenated_string, STATE 7017), (sym_string, STATE 6751), (sym_await, STATE 7017),
    (aux_sym_module_repeat1, STATE 925), (aux_sym_decorated_definition_repeat1, STATE 3670),
    (sym_identifier, ACTIONS 9), (anon_sym_import, ACTIONS 11), (anon_sym_from, ACTIONS 13),
    (anon_sym_LPAREN, ACTIONS 15), (anon_sym_STAR, ACTIONS 17), (anon_sym_print, ACTIONS 19),
    (anon_sym_comptime, ACTIONS 99), (anon_sym_assert, ACTIONS 23),
    (anon_sym___comptime_assert, ACTIONS 25), (anon_sym_return, ACTIONS 27),
    (anon_sym_del, ACTIONS 29), (anon_sym_raise, ACTIONS 31), (anon_sym_pass, ACTIONS 33),
    (anon_sym_break, ACTIONS 35), (anon_sym_continue, ACTIONS 37),
    (anon_sym___extension, ACTIONS 101), (anon_sym___mlir_region, ACTIONS 103),
    (anon_sym_if, ACTIONS 105), (anon_sym_match, ACTIONS 107), (anon_sym_async, ACTIONS 109),
    (anon_sym_for, ACTIONS 111), (anon_sym_while, ACTIONS 113), (anon_sym_try, ACTIONS 115),
    (anon_sym_with, ACTIONS 117), (anon_sym_def, ACTIONS 119), (anon_sym_fn, ACTIONS 119),
    (anon_sym_LBRACK, ACTIONS 59), (anon_sym_LBRACE, ACTIONS 61), (anon_sym_global, ACTIONS 63),
    (anon_sym_nonlocal, ACTIONS 65), (anon_sym_exec, ACTIONS 67), (anon_sym_type, ACTIONS 69),
    (anon_sym_class, ACTIONS 121), (anon_sym_struct, ACTIONS 121), (anon_sym_mut, ACTIONS 73),
    (anon_sym_out, ACTIONS 73), (anon_sym_trait, ACTIONS 123), (anon_sym_AT, ACTIONS 77),
    (anon_sym_DASH, ACTIONS 79), (anon_sym_PLUS, ACTIONS 79), (anon_sym_ref, ACTIONS 81),
    (anon_sym_var, ACTIONS 81), (anon_sym_not, ACTIONS 83), (anon_sym_TILDE, ACTIONS 79),
    (anon_sym_lambda, ACTIONS 85), (anon_sym_yield, ACTIONS 87), (sym_ellipsis, ACTIONS 89),
    (anon_sym___mlir_type, ACTIONS 91), (sym_integer, ACTIONS 93), (sym_float, ACTIONS 89),
    (anon_sym_await, ACTIONS 95), (sym_true, ACTIONS 93), (sym_false, ACTIONS 93),
    (sym_none, ACTIONS 93), (sym_comment, ACTIONS 3), (sym_line_continuation, ACTIONS 3),
    (sym__dedent, ACTIONS 129), (sym_string_start, ACTIONS 97)]"

definition parse_table_372 :: "(nat \<times> nat) list" where "parse_table_372 = [
    (sym__statement, STATE 925), (sym__simple_statements, STATE 925),
    (sym_import_statement, STATE 11814), (sym_future_import_statement, STATE 11814),
    (sym_import_from_statement, STATE 11814), (sym_print_statement, STATE 11814),
    (sym_assert_statement, STATE 11814), (sym_comptime_assert_statement, STATE 11814),
    (sym_expression_statement, STATE 11814), (sym_tuple_expression, STATE 12425),
    (sym_named_expression, STATE 7969), (sym__named_expression_lhs, STATE 12752),
    (sym_return_statement, STATE 11814), (sym_delete_statement, STATE 11814),
    (sym_raise_statement, STATE 11814), (sym_pass_statement, STATE 11814),
    (sym_break_statement, STATE 11814), (sym_continue_statement, STATE 11814),
    (sym_extension_definition, STATE 925), (sym_mlir_region, STATE 925),
    (sym_comptime_statement, STATE 925), (sym_if_statement, STATE 925),
    (sym_match_statement, STATE 925), (sym_for_statement, STATE 925),
    (sym_while_statement, STATE 925), (sym_try_statement, STATE 925),
    (sym_with_statement, STATE 925), (sym_function_definition, STATE 925),
    (sym_global_statement, STATE 11814), (sym_nonlocal_statement, STATE 11814),
    (sym_exec_statement, STATE 11814), (sym_type_alias_statement, STATE 11814),
    (sym_parameterized_alias_statement, STATE 11814), (sym_class_definition, STATE 925),
    (sym_trait_definition, STATE 925), (sym_decorated_definition, STATE 925),
    (sym_decorator, STATE 3670), (sym_block, STATE 6337), (sym_pattern, STATE 8086),
    (sym_tuple_pattern, STATE 8101), (sym_list_pattern, STATE 8101),
    (sym_list_splat_pattern, STATE 6819), (sym_as_pattern, STATE 7969),
    (sym_expression, STATE 9883), (sym_primary_expression, STATE 7326),
    (sym_comptime_expression, STATE 7017), (sym_transfer_expression, STATE 7017),
    (sym_not_operator, STATE 7969), (sym_boolean_operator, STATE 7969),
    (sym_binary_operator, STATE 7017), (sym_unary_operator, STATE 7017),
    (sym_comparison_operator, STATE 7969), (sym_lambda, STATE 7969),
    (sym_assignment, STATE 12425), (sym_augmented_assignment, STATE 12425),
    (sym_pattern_list, STATE 8578), (sym_yield, STATE 12425), (sym_attribute, STATE 6836),
    (sym_subscript, STATE 6838), (sym_call, STATE 6845), (sym_mlir_type, STATE 7017),
    (sym_list, STATE 7017), (sym_set, STATE 7017), (sym_tuple, STATE 7017),
    (sym_dictionary, STATE 7017), (sym_struct_literal, STATE 7017),
    (sym_list_comprehension, STATE 7017), (sym_dictionary_comprehension, STATE 7017),
    (sym_set_comprehension, STATE 7017), (sym_generator_expression, STATE 7017),
    (sym_parenthesized_expression, STATE 7017), (sym_conditional_expression, STATE 7969),
    (sym_concatenated_string, STATE 7017), (sym_string, STATE 6751), (sym_await, STATE 7017),
    (aux_sym_module_repeat1, STATE 925), (aux_sym_decorated_definition_repeat1, STATE 3670),
    (sym_identifier, ACTIONS 9), (anon_sym_import, ACTIONS 11), (anon_sym_from, ACTIONS 13),
    (anon_sym_LPAREN, ACTIONS 15), (anon_sym_STAR, ACTIONS 17), (anon_sym_print, ACTIONS 19),
    (anon_sym_comptime, ACTIONS 99), (anon_sym_assert, ACTIONS 23),
    (anon_sym___comptime_assert, ACTIONS 25), (anon_sym_return, ACTIONS 27),
    (anon_sym_del, ACTIONS 29), (anon_sym_raise, ACTIONS 31), (anon_sym_pass, ACTIONS 33),
    (anon_sym_break, ACTIONS 35), (anon_sym_continue, ACTIONS 37),
    (anon_sym___extension, ACTIONS 101), (anon_sym___mlir_region, ACTIONS 103),
    (anon_sym_if, ACTIONS 105), (anon_sym_match, ACTIONS 107), (anon_sym_async, ACTIONS 109),
    (anon_sym_for, ACTIONS 111), (anon_sym_while, ACTIONS 113), (anon_sym_try, ACTIONS 115),
    (anon_sym_with, ACTIONS 117), (anon_sym_def, ACTIONS 119), (anon_sym_fn, ACTIONS 119),
    (anon_sym_LBRACK, ACTIONS 59), (anon_sym_LBRACE, ACTIONS 61), (anon_sym_global, ACTIONS 63),
    (anon_sym_nonlocal, ACTIONS 65), (anon_sym_exec, ACTIONS 67), (anon_sym_type, ACTIONS 69),
    (anon_sym_class, ACTIONS 121), (anon_sym_struct, ACTIONS 121), (anon_sym_mut, ACTIONS 73),
    (anon_sym_out, ACTIONS 73), (anon_sym_trait, ACTIONS 123), (anon_sym_AT, ACTIONS 77),
    (anon_sym_DASH, ACTIONS 79), (anon_sym_PLUS, ACTIONS 79), (anon_sym_ref, ACTIONS 81),
    (anon_sym_var, ACTIONS 81), (anon_sym_not, ACTIONS 83), (anon_sym_TILDE, ACTIONS 79),
    (anon_sym_lambda, ACTIONS 85), (anon_sym_yield, ACTIONS 87), (sym_ellipsis, ACTIONS 89),
    (anon_sym___mlir_type, ACTIONS 91), (sym_integer, ACTIONS 93), (sym_float, ACTIONS 89),
    (anon_sym_await, ACTIONS 95), (sym_true, ACTIONS 93), (sym_false, ACTIONS 93),
    (sym_none, ACTIONS 93), (sym_comment, ACTIONS 3), (sym_line_continuation, ACTIONS 3),
    (sym__dedent, ACTIONS 129), (sym_string_start, ACTIONS 97)]"

definition parse_table_373 :: "(nat \<times> nat) list" where "parse_table_373 = [
    (sym__statement, STATE 925), (sym__simple_statements, STATE 925),
    (sym_import_statement, STATE 11814), (sym_future_import_statement, STATE 11814),
    (sym_import_from_statement, STATE 11814), (sym_print_statement, STATE 11814),
    (sym_assert_statement, STATE 11814), (sym_comptime_assert_statement, STATE 11814),
    (sym_expression_statement, STATE 11814), (sym_tuple_expression, STATE 12425),
    (sym_named_expression, STATE 7969), (sym__named_expression_lhs, STATE 12752),
    (sym_return_statement, STATE 11814), (sym_delete_statement, STATE 11814),
    (sym_raise_statement, STATE 11814), (sym_pass_statement, STATE 11814),
    (sym_break_statement, STATE 11814), (sym_continue_statement, STATE 11814),
    (sym_extension_definition, STATE 925), (sym_mlir_region, STATE 925),
    (sym_comptime_statement, STATE 925), (sym_if_statement, STATE 925),
    (sym_match_statement, STATE 925), (sym_for_statement, STATE 925),
    (sym_while_statement, STATE 925), (sym_try_statement, STATE 925),
    (sym_with_statement, STATE 925), (sym_function_definition, STATE 925),
    (sym_global_statement, STATE 11814), (sym_nonlocal_statement, STATE 11814),
    (sym_exec_statement, STATE 11814), (sym_type_alias_statement, STATE 11814),
    (sym_parameterized_alias_statement, STATE 11814), (sym_class_definition, STATE 925),
    (sym_trait_definition, STATE 925), (sym_decorated_definition, STATE 925),
    (sym_decorator, STATE 3670), (sym_block, STATE 6340), (sym_pattern, STATE 8086),
    (sym_tuple_pattern, STATE 8101), (sym_list_pattern, STATE 8101),
    (sym_list_splat_pattern, STATE 6819), (sym_as_pattern, STATE 7969),
    (sym_expression, STATE 9883), (sym_primary_expression, STATE 7326),
    (sym_comptime_expression, STATE 7017), (sym_transfer_expression, STATE 7017),
    (sym_not_operator, STATE 7969), (sym_boolean_operator, STATE 7969),
    (sym_binary_operator, STATE 7017), (sym_unary_operator, STATE 7017),
    (sym_comparison_operator, STATE 7969), (sym_lambda, STATE 7969),
    (sym_assignment, STATE 12425), (sym_augmented_assignment, STATE 12425),
    (sym_pattern_list, STATE 8578), (sym_yield, STATE 12425), (sym_attribute, STATE 6836),
    (sym_subscript, STATE 6838), (sym_call, STATE 6845), (sym_mlir_type, STATE 7017),
    (sym_list, STATE 7017), (sym_set, STATE 7017), (sym_tuple, STATE 7017),
    (sym_dictionary, STATE 7017), (sym_struct_literal, STATE 7017),
    (sym_list_comprehension, STATE 7017), (sym_dictionary_comprehension, STATE 7017),
    (sym_set_comprehension, STATE 7017), (sym_generator_expression, STATE 7017),
    (sym_parenthesized_expression, STATE 7017), (sym_conditional_expression, STATE 7969),
    (sym_concatenated_string, STATE 7017), (sym_string, STATE 6751), (sym_await, STATE 7017),
    (aux_sym_module_repeat1, STATE 925), (aux_sym_decorated_definition_repeat1, STATE 3670),
    (sym_identifier, ACTIONS 9), (anon_sym_import, ACTIONS 11), (anon_sym_from, ACTIONS 13),
    (anon_sym_LPAREN, ACTIONS 15), (anon_sym_STAR, ACTIONS 17), (anon_sym_print, ACTIONS 19),
    (anon_sym_comptime, ACTIONS 99), (anon_sym_assert, ACTIONS 23),
    (anon_sym___comptime_assert, ACTIONS 25), (anon_sym_return, ACTIONS 27),
    (anon_sym_del, ACTIONS 29), (anon_sym_raise, ACTIONS 31), (anon_sym_pass, ACTIONS 33),
    (anon_sym_break, ACTIONS 35), (anon_sym_continue, ACTIONS 37),
    (anon_sym___extension, ACTIONS 101), (anon_sym___mlir_region, ACTIONS 103),
    (anon_sym_if, ACTIONS 105), (anon_sym_match, ACTIONS 107), (anon_sym_async, ACTIONS 109),
    (anon_sym_for, ACTIONS 111), (anon_sym_while, ACTIONS 113), (anon_sym_try, ACTIONS 115),
    (anon_sym_with, ACTIONS 117), (anon_sym_def, ACTIONS 119), (anon_sym_fn, ACTIONS 119),
    (anon_sym_LBRACK, ACTIONS 59), (anon_sym_LBRACE, ACTIONS 61), (anon_sym_global, ACTIONS 63),
    (anon_sym_nonlocal, ACTIONS 65), (anon_sym_exec, ACTIONS 67), (anon_sym_type, ACTIONS 69),
    (anon_sym_class, ACTIONS 121), (anon_sym_struct, ACTIONS 121), (anon_sym_mut, ACTIONS 73),
    (anon_sym_out, ACTIONS 73), (anon_sym_trait, ACTIONS 123), (anon_sym_AT, ACTIONS 77),
    (anon_sym_DASH, ACTIONS 79), (anon_sym_PLUS, ACTIONS 79), (anon_sym_ref, ACTIONS 81),
    (anon_sym_var, ACTIONS 81), (anon_sym_not, ACTIONS 83), (anon_sym_TILDE, ACTIONS 79),
    (anon_sym_lambda, ACTIONS 85), (anon_sym_yield, ACTIONS 87), (sym_ellipsis, ACTIONS 89),
    (anon_sym___mlir_type, ACTIONS 91), (sym_integer, ACTIONS 93), (sym_float, ACTIONS 89),
    (anon_sym_await, ACTIONS 95), (sym_true, ACTIONS 93), (sym_false, ACTIONS 93),
    (sym_none, ACTIONS 93), (sym_comment, ACTIONS 3), (sym_line_continuation, ACTIONS 3),
    (sym__dedent, ACTIONS 129), (sym_string_start, ACTIONS 97)]"

definition parse_table_374 :: "(nat \<times> nat) list" where "parse_table_374 = [
    (sym__statement, STATE 925), (sym__simple_statements, STATE 925),
    (sym_import_statement, STATE 11814), (sym_future_import_statement, STATE 11814),
    (sym_import_from_statement, STATE 11814), (sym_print_statement, STATE 11814),
    (sym_assert_statement, STATE 11814), (sym_comptime_assert_statement, STATE 11814),
    (sym_expression_statement, STATE 11814), (sym_tuple_expression, STATE 12425),
    (sym_named_expression, STATE 7969), (sym__named_expression_lhs, STATE 12752),
    (sym_return_statement, STATE 11814), (sym_delete_statement, STATE 11814),
    (sym_raise_statement, STATE 11814), (sym_pass_statement, STATE 11814),
    (sym_break_statement, STATE 11814), (sym_continue_statement, STATE 11814),
    (sym_extension_definition, STATE 925), (sym_mlir_region, STATE 925),
    (sym_comptime_statement, STATE 925), (sym_if_statement, STATE 925),
    (sym_match_statement, STATE 925), (sym_for_statement, STATE 925),
    (sym_while_statement, STATE 925), (sym_try_statement, STATE 925),
    (sym_with_statement, STATE 925), (sym_function_definition, STATE 925),
    (sym_global_statement, STATE 11814), (sym_nonlocal_statement, STATE 11814),
    (sym_exec_statement, STATE 11814), (sym_type_alias_statement, STATE 11814),
    (sym_parameterized_alias_statement, STATE 11814), (sym_class_definition, STATE 925),
    (sym_trait_definition, STATE 925), (sym_decorated_definition, STATE 925),
    (sym_decorator, STATE 3670), (sym_block, STATE 6345), (sym_pattern, STATE 8086),
    (sym_tuple_pattern, STATE 8101), (sym_list_pattern, STATE 8101),
    (sym_list_splat_pattern, STATE 6819), (sym_as_pattern, STATE 7969),
    (sym_expression, STATE 9883), (sym_primary_expression, STATE 7326),
    (sym_comptime_expression, STATE 7017), (sym_transfer_expression, STATE 7017),
    (sym_not_operator, STATE 7969), (sym_boolean_operator, STATE 7969),
    (sym_binary_operator, STATE 7017), (sym_unary_operator, STATE 7017),
    (sym_comparison_operator, STATE 7969), (sym_lambda, STATE 7969),
    (sym_assignment, STATE 12425), (sym_augmented_assignment, STATE 12425),
    (sym_pattern_list, STATE 8578), (sym_yield, STATE 12425), (sym_attribute, STATE 6836),
    (sym_subscript, STATE 6838), (sym_call, STATE 6845), (sym_mlir_type, STATE 7017),
    (sym_list, STATE 7017), (sym_set, STATE 7017), (sym_tuple, STATE 7017),
    (sym_dictionary, STATE 7017), (sym_struct_literal, STATE 7017),
    (sym_list_comprehension, STATE 7017), (sym_dictionary_comprehension, STATE 7017),
    (sym_set_comprehension, STATE 7017), (sym_generator_expression, STATE 7017),
    (sym_parenthesized_expression, STATE 7017), (sym_conditional_expression, STATE 7969),
    (sym_concatenated_string, STATE 7017), (sym_string, STATE 6751), (sym_await, STATE 7017),
    (aux_sym_module_repeat1, STATE 925), (aux_sym_decorated_definition_repeat1, STATE 3670),
    (sym_identifier, ACTIONS 9), (anon_sym_import, ACTIONS 11), (anon_sym_from, ACTIONS 13),
    (anon_sym_LPAREN, ACTIONS 15), (anon_sym_STAR, ACTIONS 17), (anon_sym_print, ACTIONS 19),
    (anon_sym_comptime, ACTIONS 99), (anon_sym_assert, ACTIONS 23),
    (anon_sym___comptime_assert, ACTIONS 25), (anon_sym_return, ACTIONS 27),
    (anon_sym_del, ACTIONS 29), (anon_sym_raise, ACTIONS 31), (anon_sym_pass, ACTIONS 33),
    (anon_sym_break, ACTIONS 35), (anon_sym_continue, ACTIONS 37),
    (anon_sym___extension, ACTIONS 101), (anon_sym___mlir_region, ACTIONS 103),
    (anon_sym_if, ACTIONS 105), (anon_sym_match, ACTIONS 107), (anon_sym_async, ACTIONS 109),
    (anon_sym_for, ACTIONS 111), (anon_sym_while, ACTIONS 113), (anon_sym_try, ACTIONS 115),
    (anon_sym_with, ACTIONS 117), (anon_sym_def, ACTIONS 119), (anon_sym_fn, ACTIONS 119),
    (anon_sym_LBRACK, ACTIONS 59), (anon_sym_LBRACE, ACTIONS 61), (anon_sym_global, ACTIONS 63),
    (anon_sym_nonlocal, ACTIONS 65), (anon_sym_exec, ACTIONS 67), (anon_sym_type, ACTIONS 69),
    (anon_sym_class, ACTIONS 121), (anon_sym_struct, ACTIONS 121), (anon_sym_mut, ACTIONS 73),
    (anon_sym_out, ACTIONS 73), (anon_sym_trait, ACTIONS 123), (anon_sym_AT, ACTIONS 77),
    (anon_sym_DASH, ACTIONS 79), (anon_sym_PLUS, ACTIONS 79), (anon_sym_ref, ACTIONS 81),
    (anon_sym_var, ACTIONS 81), (anon_sym_not, ACTIONS 83), (anon_sym_TILDE, ACTIONS 79),
    (anon_sym_lambda, ACTIONS 85), (anon_sym_yield, ACTIONS 87), (sym_ellipsis, ACTIONS 89),
    (anon_sym___mlir_type, ACTIONS 91), (sym_integer, ACTIONS 93), (sym_float, ACTIONS 89),
    (anon_sym_await, ACTIONS 95), (sym_true, ACTIONS 93), (sym_false, ACTIONS 93),
    (sym_none, ACTIONS 93), (sym_comment, ACTIONS 3), (sym_line_continuation, ACTIONS 3),
    (sym__dedent, ACTIONS 129), (sym_string_start, ACTIONS 97)]"

definition parse_table_375 :: "(nat \<times> nat) list" where "parse_table_375 = [
    (sym__statement, STATE 925), (sym__simple_statements, STATE 925),
    (sym_import_statement, STATE 11814), (sym_future_import_statement, STATE 11814),
    (sym_import_from_statement, STATE 11814), (sym_print_statement, STATE 11814),
    (sym_assert_statement, STATE 11814), (sym_comptime_assert_statement, STATE 11814),
    (sym_expression_statement, STATE 11814), (sym_tuple_expression, STATE 12425),
    (sym_named_expression, STATE 7969), (sym__named_expression_lhs, STATE 12752),
    (sym_return_statement, STATE 11814), (sym_delete_statement, STATE 11814),
    (sym_raise_statement, STATE 11814), (sym_pass_statement, STATE 11814),
    (sym_break_statement, STATE 11814), (sym_continue_statement, STATE 11814),
    (sym_extension_definition, STATE 925), (sym_mlir_region, STATE 925),
    (sym_comptime_statement, STATE 925), (sym_if_statement, STATE 925),
    (sym_match_statement, STATE 925), (sym_for_statement, STATE 925),
    (sym_while_statement, STATE 925), (sym_try_statement, STATE 925),
    (sym_with_statement, STATE 925), (sym_function_definition, STATE 925),
    (sym_global_statement, STATE 11814), (sym_nonlocal_statement, STATE 11814),
    (sym_exec_statement, STATE 11814), (sym_type_alias_statement, STATE 11814),
    (sym_parameterized_alias_statement, STATE 11814), (sym_class_definition, STATE 925),
    (sym_trait_definition, STATE 925), (sym_decorated_definition, STATE 925),
    (sym_decorator, STATE 3670), (sym_block, STATE 6350), (sym_pattern, STATE 8086),
    (sym_tuple_pattern, STATE 8101), (sym_list_pattern, STATE 8101),
    (sym_list_splat_pattern, STATE 6819), (sym_as_pattern, STATE 7969),
    (sym_expression, STATE 9883), (sym_primary_expression, STATE 7326),
    (sym_comptime_expression, STATE 7017), (sym_transfer_expression, STATE 7017),
    (sym_not_operator, STATE 7969), (sym_boolean_operator, STATE 7969),
    (sym_binary_operator, STATE 7017), (sym_unary_operator, STATE 7017),
    (sym_comparison_operator, STATE 7969), (sym_lambda, STATE 7969),
    (sym_assignment, STATE 12425), (sym_augmented_assignment, STATE 12425),
    (sym_pattern_list, STATE 8578), (sym_yield, STATE 12425), (sym_attribute, STATE 6836),
    (sym_subscript, STATE 6838), (sym_call, STATE 6845), (sym_mlir_type, STATE 7017),
    (sym_list, STATE 7017), (sym_set, STATE 7017), (sym_tuple, STATE 7017),
    (sym_dictionary, STATE 7017), (sym_struct_literal, STATE 7017),
    (sym_list_comprehension, STATE 7017), (sym_dictionary_comprehension, STATE 7017),
    (sym_set_comprehension, STATE 7017), (sym_generator_expression, STATE 7017),
    (sym_parenthesized_expression, STATE 7017), (sym_conditional_expression, STATE 7969),
    (sym_concatenated_string, STATE 7017), (sym_string, STATE 6751), (sym_await, STATE 7017),
    (aux_sym_module_repeat1, STATE 925), (aux_sym_decorated_definition_repeat1, STATE 3670),
    (sym_identifier, ACTIONS 9), (anon_sym_import, ACTIONS 11), (anon_sym_from, ACTIONS 13),
    (anon_sym_LPAREN, ACTIONS 15), (anon_sym_STAR, ACTIONS 17), (anon_sym_print, ACTIONS 19),
    (anon_sym_comptime, ACTIONS 99), (anon_sym_assert, ACTIONS 23),
    (anon_sym___comptime_assert, ACTIONS 25), (anon_sym_return, ACTIONS 27),
    (anon_sym_del, ACTIONS 29), (anon_sym_raise, ACTIONS 31), (anon_sym_pass, ACTIONS 33),
    (anon_sym_break, ACTIONS 35), (anon_sym_continue, ACTIONS 37),
    (anon_sym___extension, ACTIONS 101), (anon_sym___mlir_region, ACTIONS 103),
    (anon_sym_if, ACTIONS 105), (anon_sym_match, ACTIONS 107), (anon_sym_async, ACTIONS 109),
    (anon_sym_for, ACTIONS 111), (anon_sym_while, ACTIONS 113), (anon_sym_try, ACTIONS 115),
    (anon_sym_with, ACTIONS 117), (anon_sym_def, ACTIONS 119), (anon_sym_fn, ACTIONS 119),
    (anon_sym_LBRACK, ACTIONS 59), (anon_sym_LBRACE, ACTIONS 61), (anon_sym_global, ACTIONS 63),
    (anon_sym_nonlocal, ACTIONS 65), (anon_sym_exec, ACTIONS 67), (anon_sym_type, ACTIONS 69),
    (anon_sym_class, ACTIONS 121), (anon_sym_struct, ACTIONS 121), (anon_sym_mut, ACTIONS 73),
    (anon_sym_out, ACTIONS 73), (anon_sym_trait, ACTIONS 123), (anon_sym_AT, ACTIONS 77),
    (anon_sym_DASH, ACTIONS 79), (anon_sym_PLUS, ACTIONS 79), (anon_sym_ref, ACTIONS 81),
    (anon_sym_var, ACTIONS 81), (anon_sym_not, ACTIONS 83), (anon_sym_TILDE, ACTIONS 79),
    (anon_sym_lambda, ACTIONS 85), (anon_sym_yield, ACTIONS 87), (sym_ellipsis, ACTIONS 89),
    (anon_sym___mlir_type, ACTIONS 91), (sym_integer, ACTIONS 93), (sym_float, ACTIONS 89),
    (anon_sym_await, ACTIONS 95), (sym_true, ACTIONS 93), (sym_false, ACTIONS 93),
    (sym_none, ACTIONS 93), (sym_comment, ACTIONS 3), (sym_line_continuation, ACTIONS 3),
    (sym__dedent, ACTIONS 129), (sym_string_start, ACTIONS 97)]"

definition parse_table_376 :: "(nat \<times> nat) list" where "parse_table_376 = [
    (sym__statement, STATE 925), (sym__simple_statements, STATE 925),
    (sym_import_statement, STATE 11814), (sym_future_import_statement, STATE 11814),
    (sym_import_from_statement, STATE 11814), (sym_print_statement, STATE 11814),
    (sym_assert_statement, STATE 11814), (sym_comptime_assert_statement, STATE 11814),
    (sym_expression_statement, STATE 11814), (sym_tuple_expression, STATE 12425),
    (sym_named_expression, STATE 7969), (sym__named_expression_lhs, STATE 12752),
    (sym_return_statement, STATE 11814), (sym_delete_statement, STATE 11814),
    (sym_raise_statement, STATE 11814), (sym_pass_statement, STATE 11814),
    (sym_break_statement, STATE 11814), (sym_continue_statement, STATE 11814),
    (sym_extension_definition, STATE 925), (sym_mlir_region, STATE 925),
    (sym_comptime_statement, STATE 925), (sym_if_statement, STATE 925),
    (sym_match_statement, STATE 925), (sym_for_statement, STATE 925),
    (sym_while_statement, STATE 925), (sym_try_statement, STATE 925),
    (sym_with_statement, STATE 925), (sym_function_definition, STATE 925),
    (sym_global_statement, STATE 11814), (sym_nonlocal_statement, STATE 11814),
    (sym_exec_statement, STATE 11814), (sym_type_alias_statement, STATE 11814),
    (sym_parameterized_alias_statement, STATE 11814), (sym_class_definition, STATE 925),
    (sym_trait_definition, STATE 925), (sym_decorated_definition, STATE 925),
    (sym_decorator, STATE 3670), (sym_block, STATE 6358), (sym_pattern, STATE 8086),
    (sym_tuple_pattern, STATE 8101), (sym_list_pattern, STATE 8101),
    (sym_list_splat_pattern, STATE 6819), (sym_as_pattern, STATE 7969),
    (sym_expression, STATE 9883), (sym_primary_expression, STATE 7326),
    (sym_comptime_expression, STATE 7017), (sym_transfer_expression, STATE 7017),
    (sym_not_operator, STATE 7969), (sym_boolean_operator, STATE 7969),
    (sym_binary_operator, STATE 7017), (sym_unary_operator, STATE 7017),
    (sym_comparison_operator, STATE 7969), (sym_lambda, STATE 7969),
    (sym_assignment, STATE 12425), (sym_augmented_assignment, STATE 12425),
    (sym_pattern_list, STATE 8578), (sym_yield, STATE 12425), (sym_attribute, STATE 6836),
    (sym_subscript, STATE 6838), (sym_call, STATE 6845), (sym_mlir_type, STATE 7017),
    (sym_list, STATE 7017), (sym_set, STATE 7017), (sym_tuple, STATE 7017),
    (sym_dictionary, STATE 7017), (sym_struct_literal, STATE 7017),
    (sym_list_comprehension, STATE 7017), (sym_dictionary_comprehension, STATE 7017),
    (sym_set_comprehension, STATE 7017), (sym_generator_expression, STATE 7017),
    (sym_parenthesized_expression, STATE 7017), (sym_conditional_expression, STATE 7969),
    (sym_concatenated_string, STATE 7017), (sym_string, STATE 6751), (sym_await, STATE 7017),
    (aux_sym_module_repeat1, STATE 925), (aux_sym_decorated_definition_repeat1, STATE 3670),
    (sym_identifier, ACTIONS 9), (anon_sym_import, ACTIONS 11), (anon_sym_from, ACTIONS 13),
    (anon_sym_LPAREN, ACTIONS 15), (anon_sym_STAR, ACTIONS 17), (anon_sym_print, ACTIONS 19),
    (anon_sym_comptime, ACTIONS 99), (anon_sym_assert, ACTIONS 23),
    (anon_sym___comptime_assert, ACTIONS 25), (anon_sym_return, ACTIONS 27),
    (anon_sym_del, ACTIONS 29), (anon_sym_raise, ACTIONS 31), (anon_sym_pass, ACTIONS 33),
    (anon_sym_break, ACTIONS 35), (anon_sym_continue, ACTIONS 37),
    (anon_sym___extension, ACTIONS 101), (anon_sym___mlir_region, ACTIONS 103),
    (anon_sym_if, ACTIONS 105), (anon_sym_match, ACTIONS 107), (anon_sym_async, ACTIONS 109),
    (anon_sym_for, ACTIONS 111), (anon_sym_while, ACTIONS 113), (anon_sym_try, ACTIONS 115),
    (anon_sym_with, ACTIONS 117), (anon_sym_def, ACTIONS 119), (anon_sym_fn, ACTIONS 119),
    (anon_sym_LBRACK, ACTIONS 59), (anon_sym_LBRACE, ACTIONS 61), (anon_sym_global, ACTIONS 63),
    (anon_sym_nonlocal, ACTIONS 65), (anon_sym_exec, ACTIONS 67), (anon_sym_type, ACTIONS 69),
    (anon_sym_class, ACTIONS 121), (anon_sym_struct, ACTIONS 121), (anon_sym_mut, ACTIONS 73),
    (anon_sym_out, ACTIONS 73), (anon_sym_trait, ACTIONS 123), (anon_sym_AT, ACTIONS 77),
    (anon_sym_DASH, ACTIONS 79), (anon_sym_PLUS, ACTIONS 79), (anon_sym_ref, ACTIONS 81),
    (anon_sym_var, ACTIONS 81), (anon_sym_not, ACTIONS 83), (anon_sym_TILDE, ACTIONS 79),
    (anon_sym_lambda, ACTIONS 85), (anon_sym_yield, ACTIONS 87), (sym_ellipsis, ACTIONS 89),
    (anon_sym___mlir_type, ACTIONS 91), (sym_integer, ACTIONS 93), (sym_float, ACTIONS 89),
    (anon_sym_await, ACTIONS 95), (sym_true, ACTIONS 93), (sym_false, ACTIONS 93),
    (sym_none, ACTIONS 93), (sym_comment, ACTIONS 3), (sym_line_continuation, ACTIONS 3),
    (sym__dedent, ACTIONS 129), (sym_string_start, ACTIONS 97)]"

definition parse_table_377 :: "(nat \<times> nat) list" where "parse_table_377 = [
    (sym__statement, STATE 925), (sym__simple_statements, STATE 925),
    (sym_import_statement, STATE 11814), (sym_future_import_statement, STATE 11814),
    (sym_import_from_statement, STATE 11814), (sym_print_statement, STATE 11814),
    (sym_assert_statement, STATE 11814), (sym_comptime_assert_statement, STATE 11814),
    (sym_expression_statement, STATE 11814), (sym_tuple_expression, STATE 12425),
    (sym_named_expression, STATE 7969), (sym__named_expression_lhs, STATE 12752),
    (sym_return_statement, STATE 11814), (sym_delete_statement, STATE 11814),
    (sym_raise_statement, STATE 11814), (sym_pass_statement, STATE 11814),
    (sym_break_statement, STATE 11814), (sym_continue_statement, STATE 11814),
    (sym_extension_definition, STATE 925), (sym_mlir_region, STATE 925),
    (sym_comptime_statement, STATE 925), (sym_if_statement, STATE 925),
    (sym_match_statement, STATE 925), (sym_for_statement, STATE 925),
    (sym_while_statement, STATE 925), (sym_try_statement, STATE 925),
    (sym_with_statement, STATE 925), (sym_function_definition, STATE 925),
    (sym_global_statement, STATE 11814), (sym_nonlocal_statement, STATE 11814),
    (sym_exec_statement, STATE 11814), (sym_type_alias_statement, STATE 11814),
    (sym_parameterized_alias_statement, STATE 11814), (sym_class_definition, STATE 925),
    (sym_trait_definition, STATE 925), (sym_decorated_definition, STATE 925),
    (sym_decorator, STATE 3670), (sym_block, STATE 6364), (sym_pattern, STATE 8086),
    (sym_tuple_pattern, STATE 8101), (sym_list_pattern, STATE 8101),
    (sym_list_splat_pattern, STATE 6819), (sym_as_pattern, STATE 7969),
    (sym_expression, STATE 9883), (sym_primary_expression, STATE 7326),
    (sym_comptime_expression, STATE 7017), (sym_transfer_expression, STATE 7017),
    (sym_not_operator, STATE 7969), (sym_boolean_operator, STATE 7969),
    (sym_binary_operator, STATE 7017), (sym_unary_operator, STATE 7017),
    (sym_comparison_operator, STATE 7969), (sym_lambda, STATE 7969),
    (sym_assignment, STATE 12425), (sym_augmented_assignment, STATE 12425),
    (sym_pattern_list, STATE 8578), (sym_yield, STATE 12425), (sym_attribute, STATE 6836),
    (sym_subscript, STATE 6838), (sym_call, STATE 6845), (sym_mlir_type, STATE 7017),
    (sym_list, STATE 7017), (sym_set, STATE 7017), (sym_tuple, STATE 7017),
    (sym_dictionary, STATE 7017), (sym_struct_literal, STATE 7017),
    (sym_list_comprehension, STATE 7017), (sym_dictionary_comprehension, STATE 7017),
    (sym_set_comprehension, STATE 7017), (sym_generator_expression, STATE 7017),
    (sym_parenthesized_expression, STATE 7017), (sym_conditional_expression, STATE 7969),
    (sym_concatenated_string, STATE 7017), (sym_string, STATE 6751), (sym_await, STATE 7017),
    (aux_sym_module_repeat1, STATE 925), (aux_sym_decorated_definition_repeat1, STATE 3670),
    (sym_identifier, ACTIONS 9), (anon_sym_import, ACTIONS 11), (anon_sym_from, ACTIONS 13),
    (anon_sym_LPAREN, ACTIONS 15), (anon_sym_STAR, ACTIONS 17), (anon_sym_print, ACTIONS 19),
    (anon_sym_comptime, ACTIONS 99), (anon_sym_assert, ACTIONS 23),
    (anon_sym___comptime_assert, ACTIONS 25), (anon_sym_return, ACTIONS 27),
    (anon_sym_del, ACTIONS 29), (anon_sym_raise, ACTIONS 31), (anon_sym_pass, ACTIONS 33),
    (anon_sym_break, ACTIONS 35), (anon_sym_continue, ACTIONS 37),
    (anon_sym___extension, ACTIONS 101), (anon_sym___mlir_region, ACTIONS 103),
    (anon_sym_if, ACTIONS 105), (anon_sym_match, ACTIONS 107), (anon_sym_async, ACTIONS 109),
    (anon_sym_for, ACTIONS 111), (anon_sym_while, ACTIONS 113), (anon_sym_try, ACTIONS 115),
    (anon_sym_with, ACTIONS 117), (anon_sym_def, ACTIONS 119), (anon_sym_fn, ACTIONS 119),
    (anon_sym_LBRACK, ACTIONS 59), (anon_sym_LBRACE, ACTIONS 61), (anon_sym_global, ACTIONS 63),
    (anon_sym_nonlocal, ACTIONS 65), (anon_sym_exec, ACTIONS 67), (anon_sym_type, ACTIONS 69),
    (anon_sym_class, ACTIONS 121), (anon_sym_struct, ACTIONS 121), (anon_sym_mut, ACTIONS 73),
    (anon_sym_out, ACTIONS 73), (anon_sym_trait, ACTIONS 123), (anon_sym_AT, ACTIONS 77),
    (anon_sym_DASH, ACTIONS 79), (anon_sym_PLUS, ACTIONS 79), (anon_sym_ref, ACTIONS 81),
    (anon_sym_var, ACTIONS 81), (anon_sym_not, ACTIONS 83), (anon_sym_TILDE, ACTIONS 79),
    (anon_sym_lambda, ACTIONS 85), (anon_sym_yield, ACTIONS 87), (sym_ellipsis, ACTIONS 89),
    (anon_sym___mlir_type, ACTIONS 91), (sym_integer, ACTIONS 93), (sym_float, ACTIONS 89),
    (anon_sym_await, ACTIONS 95), (sym_true, ACTIONS 93), (sym_false, ACTIONS 93),
    (sym_none, ACTIONS 93), (sym_comment, ACTIONS 3), (sym_line_continuation, ACTIONS 3),
    (sym__dedent, ACTIONS 129), (sym_string_start, ACTIONS 97)]"

definition parse_table_378 :: "(nat \<times> nat) list" where "parse_table_378 = [
    (sym__statement, STATE 925), (sym__simple_statements, STATE 925),
    (sym_import_statement, STATE 11814), (sym_future_import_statement, STATE 11814),
    (sym_import_from_statement, STATE 11814), (sym_print_statement, STATE 11814),
    (sym_assert_statement, STATE 11814), (sym_comptime_assert_statement, STATE 11814),
    (sym_expression_statement, STATE 11814), (sym_tuple_expression, STATE 12425),
    (sym_named_expression, STATE 7969), (sym__named_expression_lhs, STATE 12752),
    (sym_return_statement, STATE 11814), (sym_delete_statement, STATE 11814),
    (sym_raise_statement, STATE 11814), (sym_pass_statement, STATE 11814),
    (sym_break_statement, STATE 11814), (sym_continue_statement, STATE 11814),
    (sym_extension_definition, STATE 925), (sym_mlir_region, STATE 925),
    (sym_comptime_statement, STATE 925), (sym_if_statement, STATE 925),
    (sym_match_statement, STATE 925), (sym_for_statement, STATE 925),
    (sym_while_statement, STATE 925), (sym_try_statement, STATE 925),
    (sym_with_statement, STATE 925), (sym_function_definition, STATE 925),
    (sym_global_statement, STATE 11814), (sym_nonlocal_statement, STATE 11814),
    (sym_exec_statement, STATE 11814), (sym_type_alias_statement, STATE 11814),
    (sym_parameterized_alias_statement, STATE 11814), (sym_class_definition, STATE 925),
    (sym_trait_definition, STATE 925), (sym_decorated_definition, STATE 925),
    (sym_decorator, STATE 3670), (sym_block, STATE 6366), (sym_pattern, STATE 8086),
    (sym_tuple_pattern, STATE 8101), (sym_list_pattern, STATE 8101),
    (sym_list_splat_pattern, STATE 6819), (sym_as_pattern, STATE 7969),
    (sym_expression, STATE 9883), (sym_primary_expression, STATE 7326),
    (sym_comptime_expression, STATE 7017), (sym_transfer_expression, STATE 7017),
    (sym_not_operator, STATE 7969), (sym_boolean_operator, STATE 7969),
    (sym_binary_operator, STATE 7017), (sym_unary_operator, STATE 7017),
    (sym_comparison_operator, STATE 7969), (sym_lambda, STATE 7969),
    (sym_assignment, STATE 12425), (sym_augmented_assignment, STATE 12425),
    (sym_pattern_list, STATE 8578), (sym_yield, STATE 12425), (sym_attribute, STATE 6836),
    (sym_subscript, STATE 6838), (sym_call, STATE 6845), (sym_mlir_type, STATE 7017),
    (sym_list, STATE 7017), (sym_set, STATE 7017), (sym_tuple, STATE 7017),
    (sym_dictionary, STATE 7017), (sym_struct_literal, STATE 7017),
    (sym_list_comprehension, STATE 7017), (sym_dictionary_comprehension, STATE 7017),
    (sym_set_comprehension, STATE 7017), (sym_generator_expression, STATE 7017),
    (sym_parenthesized_expression, STATE 7017), (sym_conditional_expression, STATE 7969),
    (sym_concatenated_string, STATE 7017), (sym_string, STATE 6751), (sym_await, STATE 7017),
    (aux_sym_module_repeat1, STATE 925), (aux_sym_decorated_definition_repeat1, STATE 3670),
    (sym_identifier, ACTIONS 9), (anon_sym_import, ACTIONS 11), (anon_sym_from, ACTIONS 13),
    (anon_sym_LPAREN, ACTIONS 15), (anon_sym_STAR, ACTIONS 17), (anon_sym_print, ACTIONS 19),
    (anon_sym_comptime, ACTIONS 99), (anon_sym_assert, ACTIONS 23),
    (anon_sym___comptime_assert, ACTIONS 25), (anon_sym_return, ACTIONS 27),
    (anon_sym_del, ACTIONS 29), (anon_sym_raise, ACTIONS 31), (anon_sym_pass, ACTIONS 33),
    (anon_sym_break, ACTIONS 35), (anon_sym_continue, ACTIONS 37),
    (anon_sym___extension, ACTIONS 101), (anon_sym___mlir_region, ACTIONS 103),
    (anon_sym_if, ACTIONS 105), (anon_sym_match, ACTIONS 107), (anon_sym_async, ACTIONS 109),
    (anon_sym_for, ACTIONS 111), (anon_sym_while, ACTIONS 113), (anon_sym_try, ACTIONS 115),
    (anon_sym_with, ACTIONS 117), (anon_sym_def, ACTIONS 119), (anon_sym_fn, ACTIONS 119),
    (anon_sym_LBRACK, ACTIONS 59), (anon_sym_LBRACE, ACTIONS 61), (anon_sym_global, ACTIONS 63),
    (anon_sym_nonlocal, ACTIONS 65), (anon_sym_exec, ACTIONS 67), (anon_sym_type, ACTIONS 69),
    (anon_sym_class, ACTIONS 121), (anon_sym_struct, ACTIONS 121), (anon_sym_mut, ACTIONS 73),
    (anon_sym_out, ACTIONS 73), (anon_sym_trait, ACTIONS 123), (anon_sym_AT, ACTIONS 77),
    (anon_sym_DASH, ACTIONS 79), (anon_sym_PLUS, ACTIONS 79), (anon_sym_ref, ACTIONS 81),
    (anon_sym_var, ACTIONS 81), (anon_sym_not, ACTIONS 83), (anon_sym_TILDE, ACTIONS 79),
    (anon_sym_lambda, ACTIONS 85), (anon_sym_yield, ACTIONS 87), (sym_ellipsis, ACTIONS 89),
    (anon_sym___mlir_type, ACTIONS 91), (sym_integer, ACTIONS 93), (sym_float, ACTIONS 89),
    (anon_sym_await, ACTIONS 95), (sym_true, ACTIONS 93), (sym_false, ACTIONS 93),
    (sym_none, ACTIONS 93), (sym_comment, ACTIONS 3), (sym_line_continuation, ACTIONS 3),
    (sym__dedent, ACTIONS 129), (sym_string_start, ACTIONS 97)]"

definition parse_table_379 :: "(nat \<times> nat) list" where "parse_table_379 = [
    (sym__statement, STATE 925), (sym__simple_statements, STATE 925),
    (sym_import_statement, STATE 11814), (sym_future_import_statement, STATE 11814),
    (sym_import_from_statement, STATE 11814), (sym_print_statement, STATE 11814),
    (sym_assert_statement, STATE 11814), (sym_comptime_assert_statement, STATE 11814),
    (sym_expression_statement, STATE 11814), (sym_tuple_expression, STATE 12425),
    (sym_named_expression, STATE 7969), (sym__named_expression_lhs, STATE 12752),
    (sym_return_statement, STATE 11814), (sym_delete_statement, STATE 11814),
    (sym_raise_statement, STATE 11814), (sym_pass_statement, STATE 11814),
    (sym_break_statement, STATE 11814), (sym_continue_statement, STATE 11814),
    (sym_extension_definition, STATE 925), (sym_mlir_region, STATE 925),
    (sym_comptime_statement, STATE 925), (sym_if_statement, STATE 925),
    (sym_match_statement, STATE 925), (sym_for_statement, STATE 925),
    (sym_while_statement, STATE 925), (sym_try_statement, STATE 925),
    (sym_with_statement, STATE 925), (sym_function_definition, STATE 925),
    (sym_global_statement, STATE 11814), (sym_nonlocal_statement, STATE 11814),
    (sym_exec_statement, STATE 11814), (sym_type_alias_statement, STATE 11814),
    (sym_parameterized_alias_statement, STATE 11814), (sym_class_definition, STATE 925),
    (sym_trait_definition, STATE 925), (sym_decorated_definition, STATE 925),
    (sym_decorator, STATE 3670), (sym_block, STATE 6372), (sym_pattern, STATE 8086),
    (sym_tuple_pattern, STATE 8101), (sym_list_pattern, STATE 8101),
    (sym_list_splat_pattern, STATE 6819), (sym_as_pattern, STATE 7969),
    (sym_expression, STATE 9883), (sym_primary_expression, STATE 7326),
    (sym_comptime_expression, STATE 7017), (sym_transfer_expression, STATE 7017),
    (sym_not_operator, STATE 7969), (sym_boolean_operator, STATE 7969),
    (sym_binary_operator, STATE 7017), (sym_unary_operator, STATE 7017),
    (sym_comparison_operator, STATE 7969), (sym_lambda, STATE 7969),
    (sym_assignment, STATE 12425), (sym_augmented_assignment, STATE 12425),
    (sym_pattern_list, STATE 8578), (sym_yield, STATE 12425), (sym_attribute, STATE 6836),
    (sym_subscript, STATE 6838), (sym_call, STATE 6845), (sym_mlir_type, STATE 7017),
    (sym_list, STATE 7017), (sym_set, STATE 7017), (sym_tuple, STATE 7017),
    (sym_dictionary, STATE 7017), (sym_struct_literal, STATE 7017),
    (sym_list_comprehension, STATE 7017), (sym_dictionary_comprehension, STATE 7017),
    (sym_set_comprehension, STATE 7017), (sym_generator_expression, STATE 7017),
    (sym_parenthesized_expression, STATE 7017), (sym_conditional_expression, STATE 7969),
    (sym_concatenated_string, STATE 7017), (sym_string, STATE 6751), (sym_await, STATE 7017),
    (aux_sym_module_repeat1, STATE 925), (aux_sym_decorated_definition_repeat1, STATE 3670),
    (sym_identifier, ACTIONS 9), (anon_sym_import, ACTIONS 11), (anon_sym_from, ACTIONS 13),
    (anon_sym_LPAREN, ACTIONS 15), (anon_sym_STAR, ACTIONS 17), (anon_sym_print, ACTIONS 19),
    (anon_sym_comptime, ACTIONS 99), (anon_sym_assert, ACTIONS 23),
    (anon_sym___comptime_assert, ACTIONS 25), (anon_sym_return, ACTIONS 27),
    (anon_sym_del, ACTIONS 29), (anon_sym_raise, ACTIONS 31), (anon_sym_pass, ACTIONS 33),
    (anon_sym_break, ACTIONS 35), (anon_sym_continue, ACTIONS 37),
    (anon_sym___extension, ACTIONS 101), (anon_sym___mlir_region, ACTIONS 103),
    (anon_sym_if, ACTIONS 105), (anon_sym_match, ACTIONS 107), (anon_sym_async, ACTIONS 109),
    (anon_sym_for, ACTIONS 111), (anon_sym_while, ACTIONS 113), (anon_sym_try, ACTIONS 115),
    (anon_sym_with, ACTIONS 117), (anon_sym_def, ACTIONS 119), (anon_sym_fn, ACTIONS 119),
    (anon_sym_LBRACK, ACTIONS 59), (anon_sym_LBRACE, ACTIONS 61), (anon_sym_global, ACTIONS 63),
    (anon_sym_nonlocal, ACTIONS 65), (anon_sym_exec, ACTIONS 67), (anon_sym_type, ACTIONS 69),
    (anon_sym_class, ACTIONS 121), (anon_sym_struct, ACTIONS 121), (anon_sym_mut, ACTIONS 73),
    (anon_sym_out, ACTIONS 73), (anon_sym_trait, ACTIONS 123), (anon_sym_AT, ACTIONS 77),
    (anon_sym_DASH, ACTIONS 79), (anon_sym_PLUS, ACTIONS 79), (anon_sym_ref, ACTIONS 81),
    (anon_sym_var, ACTIONS 81), (anon_sym_not, ACTIONS 83), (anon_sym_TILDE, ACTIONS 79),
    (anon_sym_lambda, ACTIONS 85), (anon_sym_yield, ACTIONS 87), (sym_ellipsis, ACTIONS 89),
    (anon_sym___mlir_type, ACTIONS 91), (sym_integer, ACTIONS 93), (sym_float, ACTIONS 89),
    (anon_sym_await, ACTIONS 95), (sym_true, ACTIONS 93), (sym_false, ACTIONS 93),
    (sym_none, ACTIONS 93), (sym_comment, ACTIONS 3), (sym_line_continuation, ACTIONS 3),
    (sym__dedent, ACTIONS 129), (sym_string_start, ACTIONS 97)]"

definition parse_table_380 :: "(nat \<times> nat) list" where "parse_table_380 = [
    (sym__statement, STATE 925), (sym__simple_statements, STATE 925),
    (sym_import_statement, STATE 11814), (sym_future_import_statement, STATE 11814),
    (sym_import_from_statement, STATE 11814), (sym_print_statement, STATE 11814),
    (sym_assert_statement, STATE 11814), (sym_comptime_assert_statement, STATE 11814),
    (sym_expression_statement, STATE 11814), (sym_tuple_expression, STATE 12425),
    (sym_named_expression, STATE 7969), (sym__named_expression_lhs, STATE 12752),
    (sym_return_statement, STATE 11814), (sym_delete_statement, STATE 11814),
    (sym_raise_statement, STATE 11814), (sym_pass_statement, STATE 11814),
    (sym_break_statement, STATE 11814), (sym_continue_statement, STATE 11814),
    (sym_extension_definition, STATE 925), (sym_mlir_region, STATE 925),
    (sym_comptime_statement, STATE 925), (sym_if_statement, STATE 925),
    (sym_match_statement, STATE 925), (sym_for_statement, STATE 925),
    (sym_while_statement, STATE 925), (sym_try_statement, STATE 925),
    (sym_with_statement, STATE 925), (sym_function_definition, STATE 925),
    (sym_global_statement, STATE 11814), (sym_nonlocal_statement, STATE 11814),
    (sym_exec_statement, STATE 11814), (sym_type_alias_statement, STATE 11814),
    (sym_parameterized_alias_statement, STATE 11814), (sym_class_definition, STATE 925),
    (sym_trait_definition, STATE 925), (sym_decorated_definition, STATE 925),
    (sym_decorator, STATE 3670), (sym_block, STATE 6380), (sym_pattern, STATE 8086),
    (sym_tuple_pattern, STATE 8101), (sym_list_pattern, STATE 8101),
    (sym_list_splat_pattern, STATE 6819), (sym_as_pattern, STATE 7969),
    (sym_expression, STATE 9883), (sym_primary_expression, STATE 7326),
    (sym_comptime_expression, STATE 7017), (sym_transfer_expression, STATE 7017),
    (sym_not_operator, STATE 7969), (sym_boolean_operator, STATE 7969),
    (sym_binary_operator, STATE 7017), (sym_unary_operator, STATE 7017),
    (sym_comparison_operator, STATE 7969), (sym_lambda, STATE 7969),
    (sym_assignment, STATE 12425), (sym_augmented_assignment, STATE 12425),
    (sym_pattern_list, STATE 8578), (sym_yield, STATE 12425), (sym_attribute, STATE 6836),
    (sym_subscript, STATE 6838), (sym_call, STATE 6845), (sym_mlir_type, STATE 7017),
    (sym_list, STATE 7017), (sym_set, STATE 7017), (sym_tuple, STATE 7017),
    (sym_dictionary, STATE 7017), (sym_struct_literal, STATE 7017),
    (sym_list_comprehension, STATE 7017), (sym_dictionary_comprehension, STATE 7017),
    (sym_set_comprehension, STATE 7017), (sym_generator_expression, STATE 7017),
    (sym_parenthesized_expression, STATE 7017), (sym_conditional_expression, STATE 7969),
    (sym_concatenated_string, STATE 7017), (sym_string, STATE 6751), (sym_await, STATE 7017),
    (aux_sym_module_repeat1, STATE 925), (aux_sym_decorated_definition_repeat1, STATE 3670),
    (sym_identifier, ACTIONS 9), (anon_sym_import, ACTIONS 11), (anon_sym_from, ACTIONS 13),
    (anon_sym_LPAREN, ACTIONS 15), (anon_sym_STAR, ACTIONS 17), (anon_sym_print, ACTIONS 19),
    (anon_sym_comptime, ACTIONS 99), (anon_sym_assert, ACTIONS 23),
    (anon_sym___comptime_assert, ACTIONS 25), (anon_sym_return, ACTIONS 27),
    (anon_sym_del, ACTIONS 29), (anon_sym_raise, ACTIONS 31), (anon_sym_pass, ACTIONS 33),
    (anon_sym_break, ACTIONS 35), (anon_sym_continue, ACTIONS 37),
    (anon_sym___extension, ACTIONS 101), (anon_sym___mlir_region, ACTIONS 103),
    (anon_sym_if, ACTIONS 105), (anon_sym_match, ACTIONS 107), (anon_sym_async, ACTIONS 109),
    (anon_sym_for, ACTIONS 111), (anon_sym_while, ACTIONS 113), (anon_sym_try, ACTIONS 115),
    (anon_sym_with, ACTIONS 117), (anon_sym_def, ACTIONS 119), (anon_sym_fn, ACTIONS 119),
    (anon_sym_LBRACK, ACTIONS 59), (anon_sym_LBRACE, ACTIONS 61), (anon_sym_global, ACTIONS 63),
    (anon_sym_nonlocal, ACTIONS 65), (anon_sym_exec, ACTIONS 67), (anon_sym_type, ACTIONS 69),
    (anon_sym_class, ACTIONS 121), (anon_sym_struct, ACTIONS 121), (anon_sym_mut, ACTIONS 73),
    (anon_sym_out, ACTIONS 73), (anon_sym_trait, ACTIONS 123), (anon_sym_AT, ACTIONS 77),
    (anon_sym_DASH, ACTIONS 79), (anon_sym_PLUS, ACTIONS 79), (anon_sym_ref, ACTIONS 81),
    (anon_sym_var, ACTIONS 81), (anon_sym_not, ACTIONS 83), (anon_sym_TILDE, ACTIONS 79),
    (anon_sym_lambda, ACTIONS 85), (anon_sym_yield, ACTIONS 87), (sym_ellipsis, ACTIONS 89),
    (anon_sym___mlir_type, ACTIONS 91), (sym_integer, ACTIONS 93), (sym_float, ACTIONS 89),
    (anon_sym_await, ACTIONS 95), (sym_true, ACTIONS 93), (sym_false, ACTIONS 93),
    (sym_none, ACTIONS 93), (sym_comment, ACTIONS 3), (sym_line_continuation, ACTIONS 3),
    (sym__dedent, ACTIONS 129), (sym_string_start, ACTIONS 97)]"

definition parse_table_381 :: "(nat \<times> nat) list" where "parse_table_381 = [
    (sym__statement, STATE 925), (sym__simple_statements, STATE 925),
    (sym_import_statement, STATE 11814), (sym_future_import_statement, STATE 11814),
    (sym_import_from_statement, STATE 11814), (sym_print_statement, STATE 11814),
    (sym_assert_statement, STATE 11814), (sym_comptime_assert_statement, STATE 11814),
    (sym_expression_statement, STATE 11814), (sym_tuple_expression, STATE 12425),
    (sym_named_expression, STATE 7969), (sym__named_expression_lhs, STATE 12752),
    (sym_return_statement, STATE 11814), (sym_delete_statement, STATE 11814),
    (sym_raise_statement, STATE 11814), (sym_pass_statement, STATE 11814),
    (sym_break_statement, STATE 11814), (sym_continue_statement, STATE 11814),
    (sym_extension_definition, STATE 925), (sym_mlir_region, STATE 925),
    (sym_comptime_statement, STATE 925), (sym_if_statement, STATE 925),
    (sym_match_statement, STATE 925), (sym_for_statement, STATE 925),
    (sym_while_statement, STATE 925), (sym_try_statement, STATE 925),
    (sym_with_statement, STATE 925), (sym_function_definition, STATE 925),
    (sym_global_statement, STATE 11814), (sym_nonlocal_statement, STATE 11814),
    (sym_exec_statement, STATE 11814), (sym_type_alias_statement, STATE 11814),
    (sym_parameterized_alias_statement, STATE 11814), (sym_class_definition, STATE 925),
    (sym_trait_definition, STATE 925), (sym_decorated_definition, STATE 925),
    (sym_decorator, STATE 3670), (sym_block, STATE 6386), (sym_pattern, STATE 8086),
    (sym_tuple_pattern, STATE 8101), (sym_list_pattern, STATE 8101),
    (sym_list_splat_pattern, STATE 6819), (sym_as_pattern, STATE 7969),
    (sym_expression, STATE 9883), (sym_primary_expression, STATE 7326),
    (sym_comptime_expression, STATE 7017), (sym_transfer_expression, STATE 7017),
    (sym_not_operator, STATE 7969), (sym_boolean_operator, STATE 7969),
    (sym_binary_operator, STATE 7017), (sym_unary_operator, STATE 7017),
    (sym_comparison_operator, STATE 7969), (sym_lambda, STATE 7969),
    (sym_assignment, STATE 12425), (sym_augmented_assignment, STATE 12425),
    (sym_pattern_list, STATE 8578), (sym_yield, STATE 12425), (sym_attribute, STATE 6836),
    (sym_subscript, STATE 6838), (sym_call, STATE 6845), (sym_mlir_type, STATE 7017),
    (sym_list, STATE 7017), (sym_set, STATE 7017), (sym_tuple, STATE 7017),
    (sym_dictionary, STATE 7017), (sym_struct_literal, STATE 7017),
    (sym_list_comprehension, STATE 7017), (sym_dictionary_comprehension, STATE 7017),
    (sym_set_comprehension, STATE 7017), (sym_generator_expression, STATE 7017),
    (sym_parenthesized_expression, STATE 7017), (sym_conditional_expression, STATE 7969),
    (sym_concatenated_string, STATE 7017), (sym_string, STATE 6751), (sym_await, STATE 7017),
    (aux_sym_module_repeat1, STATE 925), (aux_sym_decorated_definition_repeat1, STATE 3670),
    (sym_identifier, ACTIONS 9), (anon_sym_import, ACTIONS 11), (anon_sym_from, ACTIONS 13),
    (anon_sym_LPAREN, ACTIONS 15), (anon_sym_STAR, ACTIONS 17), (anon_sym_print, ACTIONS 19),
    (anon_sym_comptime, ACTIONS 99), (anon_sym_assert, ACTIONS 23),
    (anon_sym___comptime_assert, ACTIONS 25), (anon_sym_return, ACTIONS 27),
    (anon_sym_del, ACTIONS 29), (anon_sym_raise, ACTIONS 31), (anon_sym_pass, ACTIONS 33),
    (anon_sym_break, ACTIONS 35), (anon_sym_continue, ACTIONS 37),
    (anon_sym___extension, ACTIONS 101), (anon_sym___mlir_region, ACTIONS 103),
    (anon_sym_if, ACTIONS 105), (anon_sym_match, ACTIONS 107), (anon_sym_async, ACTIONS 109),
    (anon_sym_for, ACTIONS 111), (anon_sym_while, ACTIONS 113), (anon_sym_try, ACTIONS 115),
    (anon_sym_with, ACTIONS 117), (anon_sym_def, ACTIONS 119), (anon_sym_fn, ACTIONS 119),
    (anon_sym_LBRACK, ACTIONS 59), (anon_sym_LBRACE, ACTIONS 61), (anon_sym_global, ACTIONS 63),
    (anon_sym_nonlocal, ACTIONS 65), (anon_sym_exec, ACTIONS 67), (anon_sym_type, ACTIONS 69),
    (anon_sym_class, ACTIONS 121), (anon_sym_struct, ACTIONS 121), (anon_sym_mut, ACTIONS 73),
    (anon_sym_out, ACTIONS 73), (anon_sym_trait, ACTIONS 123), (anon_sym_AT, ACTIONS 77),
    (anon_sym_DASH, ACTIONS 79), (anon_sym_PLUS, ACTIONS 79), (anon_sym_ref, ACTIONS 81),
    (anon_sym_var, ACTIONS 81), (anon_sym_not, ACTIONS 83), (anon_sym_TILDE, ACTIONS 79),
    (anon_sym_lambda, ACTIONS 85), (anon_sym_yield, ACTIONS 87), (sym_ellipsis, ACTIONS 89),
    (anon_sym___mlir_type, ACTIONS 91), (sym_integer, ACTIONS 93), (sym_float, ACTIONS 89),
    (anon_sym_await, ACTIONS 95), (sym_true, ACTIONS 93), (sym_false, ACTIONS 93),
    (sym_none, ACTIONS 93), (sym_comment, ACTIONS 3), (sym_line_continuation, ACTIONS 3),
    (sym__dedent, ACTIONS 129), (sym_string_start, ACTIONS 97)]"

definition parse_table_382 :: "(nat \<times> nat) list" where "parse_table_382 = [
    (sym__statement, STATE 925), (sym__simple_statements, STATE 925),
    (sym_import_statement, STATE 11814), (sym_future_import_statement, STATE 11814),
    (sym_import_from_statement, STATE 11814), (sym_print_statement, STATE 11814),
    (sym_assert_statement, STATE 11814), (sym_comptime_assert_statement, STATE 11814),
    (sym_expression_statement, STATE 11814), (sym_tuple_expression, STATE 12425),
    (sym_named_expression, STATE 7969), (sym__named_expression_lhs, STATE 12752),
    (sym_return_statement, STATE 11814), (sym_delete_statement, STATE 11814),
    (sym_raise_statement, STATE 11814), (sym_pass_statement, STATE 11814),
    (sym_break_statement, STATE 11814), (sym_continue_statement, STATE 11814),
    (sym_extension_definition, STATE 925), (sym_mlir_region, STATE 925),
    (sym_comptime_statement, STATE 925), (sym_if_statement, STATE 925),
    (sym_match_statement, STATE 925), (sym_for_statement, STATE 925),
    (sym_while_statement, STATE 925), (sym_try_statement, STATE 925),
    (sym_with_statement, STATE 925), (sym_function_definition, STATE 925),
    (sym_global_statement, STATE 11814), (sym_nonlocal_statement, STATE 11814),
    (sym_exec_statement, STATE 11814), (sym_type_alias_statement, STATE 11814),
    (sym_parameterized_alias_statement, STATE 11814), (sym_class_definition, STATE 925),
    (sym_trait_definition, STATE 925), (sym_decorated_definition, STATE 925),
    (sym_decorator, STATE 3670), (sym_block, STATE 6409), (sym_pattern, STATE 8086),
    (sym_tuple_pattern, STATE 8101), (sym_list_pattern, STATE 8101),
    (sym_list_splat_pattern, STATE 6819), (sym_as_pattern, STATE 7969),
    (sym_expression, STATE 9883), (sym_primary_expression, STATE 7326),
    (sym_comptime_expression, STATE 7017), (sym_transfer_expression, STATE 7017),
    (sym_not_operator, STATE 7969), (sym_boolean_operator, STATE 7969),
    (sym_binary_operator, STATE 7017), (sym_unary_operator, STATE 7017),
    (sym_comparison_operator, STATE 7969), (sym_lambda, STATE 7969),
    (sym_assignment, STATE 12425), (sym_augmented_assignment, STATE 12425),
    (sym_pattern_list, STATE 8578), (sym_yield, STATE 12425), (sym_attribute, STATE 6836),
    (sym_subscript, STATE 6838), (sym_call, STATE 6845), (sym_mlir_type, STATE 7017),
    (sym_list, STATE 7017), (sym_set, STATE 7017), (sym_tuple, STATE 7017),
    (sym_dictionary, STATE 7017), (sym_struct_literal, STATE 7017),
    (sym_list_comprehension, STATE 7017), (sym_dictionary_comprehension, STATE 7017),
    (sym_set_comprehension, STATE 7017), (sym_generator_expression, STATE 7017),
    (sym_parenthesized_expression, STATE 7017), (sym_conditional_expression, STATE 7969),
    (sym_concatenated_string, STATE 7017), (sym_string, STATE 6751), (sym_await, STATE 7017),
    (aux_sym_module_repeat1, STATE 925), (aux_sym_decorated_definition_repeat1, STATE 3670),
    (sym_identifier, ACTIONS 9), (anon_sym_import, ACTIONS 11), (anon_sym_from, ACTIONS 13),
    (anon_sym_LPAREN, ACTIONS 15), (anon_sym_STAR, ACTIONS 17), (anon_sym_print, ACTIONS 19),
    (anon_sym_comptime, ACTIONS 99), (anon_sym_assert, ACTIONS 23),
    (anon_sym___comptime_assert, ACTIONS 25), (anon_sym_return, ACTIONS 27),
    (anon_sym_del, ACTIONS 29), (anon_sym_raise, ACTIONS 31), (anon_sym_pass, ACTIONS 33),
    (anon_sym_break, ACTIONS 35), (anon_sym_continue, ACTIONS 37),
    (anon_sym___extension, ACTIONS 101), (anon_sym___mlir_region, ACTIONS 103),
    (anon_sym_if, ACTIONS 105), (anon_sym_match, ACTIONS 107), (anon_sym_async, ACTIONS 109),
    (anon_sym_for, ACTIONS 111), (anon_sym_while, ACTIONS 113), (anon_sym_try, ACTIONS 115),
    (anon_sym_with, ACTIONS 117), (anon_sym_def, ACTIONS 119), (anon_sym_fn, ACTIONS 119),
    (anon_sym_LBRACK, ACTIONS 59), (anon_sym_LBRACE, ACTIONS 61), (anon_sym_global, ACTIONS 63),
    (anon_sym_nonlocal, ACTIONS 65), (anon_sym_exec, ACTIONS 67), (anon_sym_type, ACTIONS 69),
    (anon_sym_class, ACTIONS 121), (anon_sym_struct, ACTIONS 121), (anon_sym_mut, ACTIONS 73),
    (anon_sym_out, ACTIONS 73), (anon_sym_trait, ACTIONS 123), (anon_sym_AT, ACTIONS 77),
    (anon_sym_DASH, ACTIONS 79), (anon_sym_PLUS, ACTIONS 79), (anon_sym_ref, ACTIONS 81),
    (anon_sym_var, ACTIONS 81), (anon_sym_not, ACTIONS 83), (anon_sym_TILDE, ACTIONS 79),
    (anon_sym_lambda, ACTIONS 85), (anon_sym_yield, ACTIONS 87), (sym_ellipsis, ACTIONS 89),
    (anon_sym___mlir_type, ACTIONS 91), (sym_integer, ACTIONS 93), (sym_float, ACTIONS 89),
    (anon_sym_await, ACTIONS 95), (sym_true, ACTIONS 93), (sym_false, ACTIONS 93),
    (sym_none, ACTIONS 93), (sym_comment, ACTIONS 3), (sym_line_continuation, ACTIONS 3),
    (sym__dedent, ACTIONS 129), (sym_string_start, ACTIONS 97)]"

definition parse_table_383 :: "(nat \<times> nat) list" where "parse_table_383 = [
    (sym__statement, STATE 925), (sym__simple_statements, STATE 925),
    (sym_import_statement, STATE 11814), (sym_future_import_statement, STATE 11814),
    (sym_import_from_statement, STATE 11814), (sym_print_statement, STATE 11814),
    (sym_assert_statement, STATE 11814), (sym_comptime_assert_statement, STATE 11814),
    (sym_expression_statement, STATE 11814), (sym_tuple_expression, STATE 12425),
    (sym_named_expression, STATE 7969), (sym__named_expression_lhs, STATE 12752),
    (sym_return_statement, STATE 11814), (sym_delete_statement, STATE 11814),
    (sym_raise_statement, STATE 11814), (sym_pass_statement, STATE 11814),
    (sym_break_statement, STATE 11814), (sym_continue_statement, STATE 11814),
    (sym_extension_definition, STATE 925), (sym_mlir_region, STATE 925),
    (sym_comptime_statement, STATE 925), (sym_if_statement, STATE 925),
    (sym_match_statement, STATE 925), (sym_for_statement, STATE 925),
    (sym_while_statement, STATE 925), (sym_try_statement, STATE 925),
    (sym_with_statement, STATE 925), (sym_function_definition, STATE 925),
    (sym_global_statement, STATE 11814), (sym_nonlocal_statement, STATE 11814),
    (sym_exec_statement, STATE 11814), (sym_type_alias_statement, STATE 11814),
    (sym_parameterized_alias_statement, STATE 11814), (sym_class_definition, STATE 925),
    (sym_trait_definition, STATE 925), (sym_decorated_definition, STATE 925),
    (sym_decorator, STATE 3670), (sym_block, STATE 6431), (sym_pattern, STATE 8086),
    (sym_tuple_pattern, STATE 8101), (sym_list_pattern, STATE 8101),
    (sym_list_splat_pattern, STATE 6819), (sym_as_pattern, STATE 7969),
    (sym_expression, STATE 9883), (sym_primary_expression, STATE 7326),
    (sym_comptime_expression, STATE 7017), (sym_transfer_expression, STATE 7017),
    (sym_not_operator, STATE 7969), (sym_boolean_operator, STATE 7969),
    (sym_binary_operator, STATE 7017), (sym_unary_operator, STATE 7017),
    (sym_comparison_operator, STATE 7969), (sym_lambda, STATE 7969),
    (sym_assignment, STATE 12425), (sym_augmented_assignment, STATE 12425),
    (sym_pattern_list, STATE 8578), (sym_yield, STATE 12425), (sym_attribute, STATE 6836),
    (sym_subscript, STATE 6838), (sym_call, STATE 6845), (sym_mlir_type, STATE 7017),
    (sym_list, STATE 7017), (sym_set, STATE 7017), (sym_tuple, STATE 7017),
    (sym_dictionary, STATE 7017), (sym_struct_literal, STATE 7017),
    (sym_list_comprehension, STATE 7017), (sym_dictionary_comprehension, STATE 7017),
    (sym_set_comprehension, STATE 7017), (sym_generator_expression, STATE 7017),
    (sym_parenthesized_expression, STATE 7017), (sym_conditional_expression, STATE 7969),
    (sym_concatenated_string, STATE 7017), (sym_string, STATE 6751), (sym_await, STATE 7017),
    (aux_sym_module_repeat1, STATE 925), (aux_sym_decorated_definition_repeat1, STATE 3670),
    (sym_identifier, ACTIONS 9), (anon_sym_import, ACTIONS 11), (anon_sym_from, ACTIONS 13),
    (anon_sym_LPAREN, ACTIONS 15), (anon_sym_STAR, ACTIONS 17), (anon_sym_print, ACTIONS 19),
    (anon_sym_comptime, ACTIONS 99), (anon_sym_assert, ACTIONS 23),
    (anon_sym___comptime_assert, ACTIONS 25), (anon_sym_return, ACTIONS 27),
    (anon_sym_del, ACTIONS 29), (anon_sym_raise, ACTIONS 31), (anon_sym_pass, ACTIONS 33),
    (anon_sym_break, ACTIONS 35), (anon_sym_continue, ACTIONS 37),
    (anon_sym___extension, ACTIONS 101), (anon_sym___mlir_region, ACTIONS 103),
    (anon_sym_if, ACTIONS 105), (anon_sym_match, ACTIONS 107), (anon_sym_async, ACTIONS 109),
    (anon_sym_for, ACTIONS 111), (anon_sym_while, ACTIONS 113), (anon_sym_try, ACTIONS 115),
    (anon_sym_with, ACTIONS 117), (anon_sym_def, ACTIONS 119), (anon_sym_fn, ACTIONS 119),
    (anon_sym_LBRACK, ACTIONS 59), (anon_sym_LBRACE, ACTIONS 61), (anon_sym_global, ACTIONS 63),
    (anon_sym_nonlocal, ACTIONS 65), (anon_sym_exec, ACTIONS 67), (anon_sym_type, ACTIONS 69),
    (anon_sym_class, ACTIONS 121), (anon_sym_struct, ACTIONS 121), (anon_sym_mut, ACTIONS 73),
    (anon_sym_out, ACTIONS 73), (anon_sym_trait, ACTIONS 123), (anon_sym_AT, ACTIONS 77),
    (anon_sym_DASH, ACTIONS 79), (anon_sym_PLUS, ACTIONS 79), (anon_sym_ref, ACTIONS 81),
    (anon_sym_var, ACTIONS 81), (anon_sym_not, ACTIONS 83), (anon_sym_TILDE, ACTIONS 79),
    (anon_sym_lambda, ACTIONS 85), (anon_sym_yield, ACTIONS 87), (sym_ellipsis, ACTIONS 89),
    (anon_sym___mlir_type, ACTIONS 91), (sym_integer, ACTIONS 93), (sym_float, ACTIONS 89),
    (anon_sym_await, ACTIONS 95), (sym_true, ACTIONS 93), (sym_false, ACTIONS 93),
    (sym_none, ACTIONS 93), (sym_comment, ACTIONS 3), (sym_line_continuation, ACTIONS 3),
    (sym__dedent, ACTIONS 129), (sym_string_start, ACTIONS 97)]"

definition parse_table_384 :: "(nat \<times> nat) list" where "parse_table_384 = [
    (sym__statement, STATE 925), (sym__simple_statements, STATE 925),
    (sym_import_statement, STATE 11814), (sym_future_import_statement, STATE 11814),
    (sym_import_from_statement, STATE 11814), (sym_print_statement, STATE 11814),
    (sym_assert_statement, STATE 11814), (sym_comptime_assert_statement, STATE 11814),
    (sym_expression_statement, STATE 11814), (sym_tuple_expression, STATE 12425),
    (sym_named_expression, STATE 7969), (sym__named_expression_lhs, STATE 12752),
    (sym_return_statement, STATE 11814), (sym_delete_statement, STATE 11814),
    (sym_raise_statement, STATE 11814), (sym_pass_statement, STATE 11814),
    (sym_break_statement, STATE 11814), (sym_continue_statement, STATE 11814),
    (sym_extension_definition, STATE 925), (sym_mlir_region, STATE 925),
    (sym_comptime_statement, STATE 925), (sym_if_statement, STATE 925),
    (sym_match_statement, STATE 925), (sym_for_statement, STATE 925),
    (sym_while_statement, STATE 925), (sym_try_statement, STATE 925),
    (sym_with_statement, STATE 925), (sym_function_definition, STATE 925),
    (sym_global_statement, STATE 11814), (sym_nonlocal_statement, STATE 11814),
    (sym_exec_statement, STATE 11814), (sym_type_alias_statement, STATE 11814),
    (sym_parameterized_alias_statement, STATE 11814), (sym_class_definition, STATE 925),
    (sym_trait_definition, STATE 925), (sym_decorated_definition, STATE 925),
    (sym_decorator, STATE 3670), (sym_block, STATE 6434), (sym_pattern, STATE 8086),
    (sym_tuple_pattern, STATE 8101), (sym_list_pattern, STATE 8101),
    (sym_list_splat_pattern, STATE 6819), (sym_as_pattern, STATE 7969),
    (sym_expression, STATE 9883), (sym_primary_expression, STATE 7326),
    (sym_comptime_expression, STATE 7017), (sym_transfer_expression, STATE 7017),
    (sym_not_operator, STATE 7969), (sym_boolean_operator, STATE 7969),
    (sym_binary_operator, STATE 7017), (sym_unary_operator, STATE 7017),
    (sym_comparison_operator, STATE 7969), (sym_lambda, STATE 7969),
    (sym_assignment, STATE 12425), (sym_augmented_assignment, STATE 12425),
    (sym_pattern_list, STATE 8578), (sym_yield, STATE 12425), (sym_attribute, STATE 6836),
    (sym_subscript, STATE 6838), (sym_call, STATE 6845), (sym_mlir_type, STATE 7017),
    (sym_list, STATE 7017), (sym_set, STATE 7017), (sym_tuple, STATE 7017),
    (sym_dictionary, STATE 7017), (sym_struct_literal, STATE 7017),
    (sym_list_comprehension, STATE 7017), (sym_dictionary_comprehension, STATE 7017),
    (sym_set_comprehension, STATE 7017), (sym_generator_expression, STATE 7017),
    (sym_parenthesized_expression, STATE 7017), (sym_conditional_expression, STATE 7969),
    (sym_concatenated_string, STATE 7017), (sym_string, STATE 6751), (sym_await, STATE 7017),
    (aux_sym_module_repeat1, STATE 925), (aux_sym_decorated_definition_repeat1, STATE 3670),
    (sym_identifier, ACTIONS 9), (anon_sym_import, ACTIONS 11), (anon_sym_from, ACTIONS 13),
    (anon_sym_LPAREN, ACTIONS 15), (anon_sym_STAR, ACTIONS 17), (anon_sym_print, ACTIONS 19),
    (anon_sym_comptime, ACTIONS 99), (anon_sym_assert, ACTIONS 23),
    (anon_sym___comptime_assert, ACTIONS 25), (anon_sym_return, ACTIONS 27),
    (anon_sym_del, ACTIONS 29), (anon_sym_raise, ACTIONS 31), (anon_sym_pass, ACTIONS 33),
    (anon_sym_break, ACTIONS 35), (anon_sym_continue, ACTIONS 37),
    (anon_sym___extension, ACTIONS 101), (anon_sym___mlir_region, ACTIONS 103),
    (anon_sym_if, ACTIONS 105), (anon_sym_match, ACTIONS 107), (anon_sym_async, ACTIONS 109),
    (anon_sym_for, ACTIONS 111), (anon_sym_while, ACTIONS 113), (anon_sym_try, ACTIONS 115),
    (anon_sym_with, ACTIONS 117), (anon_sym_def, ACTIONS 119), (anon_sym_fn, ACTIONS 119),
    (anon_sym_LBRACK, ACTIONS 59), (anon_sym_LBRACE, ACTIONS 61), (anon_sym_global, ACTIONS 63),
    (anon_sym_nonlocal, ACTIONS 65), (anon_sym_exec, ACTIONS 67), (anon_sym_type, ACTIONS 69),
    (anon_sym_class, ACTIONS 121), (anon_sym_struct, ACTIONS 121), (anon_sym_mut, ACTIONS 73),
    (anon_sym_out, ACTIONS 73), (anon_sym_trait, ACTIONS 123), (anon_sym_AT, ACTIONS 77),
    (anon_sym_DASH, ACTIONS 79), (anon_sym_PLUS, ACTIONS 79), (anon_sym_ref, ACTIONS 81),
    (anon_sym_var, ACTIONS 81), (anon_sym_not, ACTIONS 83), (anon_sym_TILDE, ACTIONS 79),
    (anon_sym_lambda, ACTIONS 85), (anon_sym_yield, ACTIONS 87), (sym_ellipsis, ACTIONS 89),
    (anon_sym___mlir_type, ACTIONS 91), (sym_integer, ACTIONS 93), (sym_float, ACTIONS 89),
    (anon_sym_await, ACTIONS 95), (sym_true, ACTIONS 93), (sym_false, ACTIONS 93),
    (sym_none, ACTIONS 93), (sym_comment, ACTIONS 3), (sym_line_continuation, ACTIONS 3),
    (sym__dedent, ACTIONS 129), (sym_string_start, ACTIONS 97)]"

definition parse_table_385 :: "(nat \<times> nat) list" where "parse_table_385 = [
    (sym__statement, STATE 925), (sym__simple_statements, STATE 925),
    (sym_import_statement, STATE 11814), (sym_future_import_statement, STATE 11814),
    (sym_import_from_statement, STATE 11814), (sym_print_statement, STATE 11814),
    (sym_assert_statement, STATE 11814), (sym_comptime_assert_statement, STATE 11814),
    (sym_expression_statement, STATE 11814), (sym_tuple_expression, STATE 12425),
    (sym_named_expression, STATE 7969), (sym__named_expression_lhs, STATE 12752),
    (sym_return_statement, STATE 11814), (sym_delete_statement, STATE 11814),
    (sym_raise_statement, STATE 11814), (sym_pass_statement, STATE 11814),
    (sym_break_statement, STATE 11814), (sym_continue_statement, STATE 11814),
    (sym_extension_definition, STATE 925), (sym_mlir_region, STATE 925),
    (sym_comptime_statement, STATE 925), (sym_if_statement, STATE 925),
    (sym_match_statement, STATE 925), (sym_for_statement, STATE 925),
    (sym_while_statement, STATE 925), (sym_try_statement, STATE 925),
    (sym_with_statement, STATE 925), (sym_function_definition, STATE 925),
    (sym_global_statement, STATE 11814), (sym_nonlocal_statement, STATE 11814),
    (sym_exec_statement, STATE 11814), (sym_type_alias_statement, STATE 11814),
    (sym_parameterized_alias_statement, STATE 11814), (sym_class_definition, STATE 925),
    (sym_trait_definition, STATE 925), (sym_decorated_definition, STATE 925),
    (sym_decorator, STATE 3670), (sym_block, STATE 6436), (sym_pattern, STATE 8086),
    (sym_tuple_pattern, STATE 8101), (sym_list_pattern, STATE 8101),
    (sym_list_splat_pattern, STATE 6819), (sym_as_pattern, STATE 7969),
    (sym_expression, STATE 9883), (sym_primary_expression, STATE 7326),
    (sym_comptime_expression, STATE 7017), (sym_transfer_expression, STATE 7017),
    (sym_not_operator, STATE 7969), (sym_boolean_operator, STATE 7969),
    (sym_binary_operator, STATE 7017), (sym_unary_operator, STATE 7017),
    (sym_comparison_operator, STATE 7969), (sym_lambda, STATE 7969),
    (sym_assignment, STATE 12425), (sym_augmented_assignment, STATE 12425),
    (sym_pattern_list, STATE 8578), (sym_yield, STATE 12425), (sym_attribute, STATE 6836),
    (sym_subscript, STATE 6838), (sym_call, STATE 6845), (sym_mlir_type, STATE 7017),
    (sym_list, STATE 7017), (sym_set, STATE 7017), (sym_tuple, STATE 7017),
    (sym_dictionary, STATE 7017), (sym_struct_literal, STATE 7017),
    (sym_list_comprehension, STATE 7017), (sym_dictionary_comprehension, STATE 7017),
    (sym_set_comprehension, STATE 7017), (sym_generator_expression, STATE 7017),
    (sym_parenthesized_expression, STATE 7017), (sym_conditional_expression, STATE 7969),
    (sym_concatenated_string, STATE 7017), (sym_string, STATE 6751), (sym_await, STATE 7017),
    (aux_sym_module_repeat1, STATE 925), (aux_sym_decorated_definition_repeat1, STATE 3670),
    (sym_identifier, ACTIONS 9), (anon_sym_import, ACTIONS 11), (anon_sym_from, ACTIONS 13),
    (anon_sym_LPAREN, ACTIONS 15), (anon_sym_STAR, ACTIONS 17), (anon_sym_print, ACTIONS 19),
    (anon_sym_comptime, ACTIONS 99), (anon_sym_assert, ACTIONS 23),
    (anon_sym___comptime_assert, ACTIONS 25), (anon_sym_return, ACTIONS 27),
    (anon_sym_del, ACTIONS 29), (anon_sym_raise, ACTIONS 31), (anon_sym_pass, ACTIONS 33),
    (anon_sym_break, ACTIONS 35), (anon_sym_continue, ACTIONS 37),
    (anon_sym___extension, ACTIONS 101), (anon_sym___mlir_region, ACTIONS 103),
    (anon_sym_if, ACTIONS 105), (anon_sym_match, ACTIONS 107), (anon_sym_async, ACTIONS 109),
    (anon_sym_for, ACTIONS 111), (anon_sym_while, ACTIONS 113), (anon_sym_try, ACTIONS 115),
    (anon_sym_with, ACTIONS 117), (anon_sym_def, ACTIONS 119), (anon_sym_fn, ACTIONS 119),
    (anon_sym_LBRACK, ACTIONS 59), (anon_sym_LBRACE, ACTIONS 61), (anon_sym_global, ACTIONS 63),
    (anon_sym_nonlocal, ACTIONS 65), (anon_sym_exec, ACTIONS 67), (anon_sym_type, ACTIONS 69),
    (anon_sym_class, ACTIONS 121), (anon_sym_struct, ACTIONS 121), (anon_sym_mut, ACTIONS 73),
    (anon_sym_out, ACTIONS 73), (anon_sym_trait, ACTIONS 123), (anon_sym_AT, ACTIONS 77),
    (anon_sym_DASH, ACTIONS 79), (anon_sym_PLUS, ACTIONS 79), (anon_sym_ref, ACTIONS 81),
    (anon_sym_var, ACTIONS 81), (anon_sym_not, ACTIONS 83), (anon_sym_TILDE, ACTIONS 79),
    (anon_sym_lambda, ACTIONS 85), (anon_sym_yield, ACTIONS 87), (sym_ellipsis, ACTIONS 89),
    (anon_sym___mlir_type, ACTIONS 91), (sym_integer, ACTIONS 93), (sym_float, ACTIONS 89),
    (anon_sym_await, ACTIONS 95), (sym_true, ACTIONS 93), (sym_false, ACTIONS 93),
    (sym_none, ACTIONS 93), (sym_comment, ACTIONS 3), (sym_line_continuation, ACTIONS 3),
    (sym__dedent, ACTIONS 129), (sym_string_start, ACTIONS 97)]"

definition parse_table_386 :: "(nat \<times> nat) list" where "parse_table_386 = [
    (sym__statement, STATE 925), (sym__simple_statements, STATE 925),
    (sym_import_statement, STATE 11814), (sym_future_import_statement, STATE 11814),
    (sym_import_from_statement, STATE 11814), (sym_print_statement, STATE 11814),
    (sym_assert_statement, STATE 11814), (sym_comptime_assert_statement, STATE 11814),
    (sym_expression_statement, STATE 11814), (sym_tuple_expression, STATE 12425),
    (sym_named_expression, STATE 7969), (sym__named_expression_lhs, STATE 12752),
    (sym_return_statement, STATE 11814), (sym_delete_statement, STATE 11814),
    (sym_raise_statement, STATE 11814), (sym_pass_statement, STATE 11814),
    (sym_break_statement, STATE 11814), (sym_continue_statement, STATE 11814),
    (sym_extension_definition, STATE 925), (sym_mlir_region, STATE 925),
    (sym_comptime_statement, STATE 925), (sym_if_statement, STATE 925),
    (sym_match_statement, STATE 925), (sym_for_statement, STATE 925),
    (sym_while_statement, STATE 925), (sym_try_statement, STATE 925),
    (sym_with_statement, STATE 925), (sym_function_definition, STATE 925),
    (sym_global_statement, STATE 11814), (sym_nonlocal_statement, STATE 11814),
    (sym_exec_statement, STATE 11814), (sym_type_alias_statement, STATE 11814),
    (sym_parameterized_alias_statement, STATE 11814), (sym_class_definition, STATE 925),
    (sym_trait_definition, STATE 925), (sym_decorated_definition, STATE 925),
    (sym_decorator, STATE 3670), (sym_block, STATE 6437), (sym_pattern, STATE 8086),
    (sym_tuple_pattern, STATE 8101), (sym_list_pattern, STATE 8101),
    (sym_list_splat_pattern, STATE 6819), (sym_as_pattern, STATE 7969),
    (sym_expression, STATE 9883), (sym_primary_expression, STATE 7326),
    (sym_comptime_expression, STATE 7017), (sym_transfer_expression, STATE 7017),
    (sym_not_operator, STATE 7969), (sym_boolean_operator, STATE 7969),
    (sym_binary_operator, STATE 7017), (sym_unary_operator, STATE 7017),
    (sym_comparison_operator, STATE 7969), (sym_lambda, STATE 7969),
    (sym_assignment, STATE 12425), (sym_augmented_assignment, STATE 12425),
    (sym_pattern_list, STATE 8578), (sym_yield, STATE 12425), (sym_attribute, STATE 6836),
    (sym_subscript, STATE 6838), (sym_call, STATE 6845), (sym_mlir_type, STATE 7017),
    (sym_list, STATE 7017), (sym_set, STATE 7017), (sym_tuple, STATE 7017),
    (sym_dictionary, STATE 7017), (sym_struct_literal, STATE 7017),
    (sym_list_comprehension, STATE 7017), (sym_dictionary_comprehension, STATE 7017),
    (sym_set_comprehension, STATE 7017), (sym_generator_expression, STATE 7017),
    (sym_parenthesized_expression, STATE 7017), (sym_conditional_expression, STATE 7969),
    (sym_concatenated_string, STATE 7017), (sym_string, STATE 6751), (sym_await, STATE 7017),
    (aux_sym_module_repeat1, STATE 925), (aux_sym_decorated_definition_repeat1, STATE 3670),
    (sym_identifier, ACTIONS 9), (anon_sym_import, ACTIONS 11), (anon_sym_from, ACTIONS 13),
    (anon_sym_LPAREN, ACTIONS 15), (anon_sym_STAR, ACTIONS 17), (anon_sym_print, ACTIONS 19),
    (anon_sym_comptime, ACTIONS 99), (anon_sym_assert, ACTIONS 23),
    (anon_sym___comptime_assert, ACTIONS 25), (anon_sym_return, ACTIONS 27),
    (anon_sym_del, ACTIONS 29), (anon_sym_raise, ACTIONS 31), (anon_sym_pass, ACTIONS 33),
    (anon_sym_break, ACTIONS 35), (anon_sym_continue, ACTIONS 37),
    (anon_sym___extension, ACTIONS 101), (anon_sym___mlir_region, ACTIONS 103),
    (anon_sym_if, ACTIONS 105), (anon_sym_match, ACTIONS 107), (anon_sym_async, ACTIONS 109),
    (anon_sym_for, ACTIONS 111), (anon_sym_while, ACTIONS 113), (anon_sym_try, ACTIONS 115),
    (anon_sym_with, ACTIONS 117), (anon_sym_def, ACTIONS 119), (anon_sym_fn, ACTIONS 119),
    (anon_sym_LBRACK, ACTIONS 59), (anon_sym_LBRACE, ACTIONS 61), (anon_sym_global, ACTIONS 63),
    (anon_sym_nonlocal, ACTIONS 65), (anon_sym_exec, ACTIONS 67), (anon_sym_type, ACTIONS 69),
    (anon_sym_class, ACTIONS 121), (anon_sym_struct, ACTIONS 121), (anon_sym_mut, ACTIONS 73),
    (anon_sym_out, ACTIONS 73), (anon_sym_trait, ACTIONS 123), (anon_sym_AT, ACTIONS 77),
    (anon_sym_DASH, ACTIONS 79), (anon_sym_PLUS, ACTIONS 79), (anon_sym_ref, ACTIONS 81),
    (anon_sym_var, ACTIONS 81), (anon_sym_not, ACTIONS 83), (anon_sym_TILDE, ACTIONS 79),
    (anon_sym_lambda, ACTIONS 85), (anon_sym_yield, ACTIONS 87), (sym_ellipsis, ACTIONS 89),
    (anon_sym___mlir_type, ACTIONS 91), (sym_integer, ACTIONS 93), (sym_float, ACTIONS 89),
    (anon_sym_await, ACTIONS 95), (sym_true, ACTIONS 93), (sym_false, ACTIONS 93),
    (sym_none, ACTIONS 93), (sym_comment, ACTIONS 3), (sym_line_continuation, ACTIONS 3),
    (sym__dedent, ACTIONS 129), (sym_string_start, ACTIONS 97)]"

definition parse_table_387 :: "(nat \<times> nat) list" where "parse_table_387 = [
    (sym__statement, STATE 925), (sym__simple_statements, STATE 925),
    (sym_import_statement, STATE 11814), (sym_future_import_statement, STATE 11814),
    (sym_import_from_statement, STATE 11814), (sym_print_statement, STATE 11814),
    (sym_assert_statement, STATE 11814), (sym_comptime_assert_statement, STATE 11814),
    (sym_expression_statement, STATE 11814), (sym_tuple_expression, STATE 12425),
    (sym_named_expression, STATE 7969), (sym__named_expression_lhs, STATE 12752),
    (sym_return_statement, STATE 11814), (sym_delete_statement, STATE 11814),
    (sym_raise_statement, STATE 11814), (sym_pass_statement, STATE 11814),
    (sym_break_statement, STATE 11814), (sym_continue_statement, STATE 11814),
    (sym_extension_definition, STATE 925), (sym_mlir_region, STATE 925),
    (sym_comptime_statement, STATE 925), (sym_if_statement, STATE 925),
    (sym_match_statement, STATE 925), (sym_for_statement, STATE 925),
    (sym_while_statement, STATE 925), (sym_try_statement, STATE 925),
    (sym_with_statement, STATE 925), (sym_function_definition, STATE 925),
    (sym_global_statement, STATE 11814), (sym_nonlocal_statement, STATE 11814),
    (sym_exec_statement, STATE 11814), (sym_type_alias_statement, STATE 11814),
    (sym_parameterized_alias_statement, STATE 11814), (sym_class_definition, STATE 925),
    (sym_trait_definition, STATE 925), (sym_decorated_definition, STATE 925),
    (sym_decorator, STATE 3670), (sym_block, STATE 6442), (sym_pattern, STATE 8086),
    (sym_tuple_pattern, STATE 8101), (sym_list_pattern, STATE 8101),
    (sym_list_splat_pattern, STATE 6819), (sym_as_pattern, STATE 7969),
    (sym_expression, STATE 9883), (sym_primary_expression, STATE 7326),
    (sym_comptime_expression, STATE 7017), (sym_transfer_expression, STATE 7017),
    (sym_not_operator, STATE 7969), (sym_boolean_operator, STATE 7969),
    (sym_binary_operator, STATE 7017), (sym_unary_operator, STATE 7017),
    (sym_comparison_operator, STATE 7969), (sym_lambda, STATE 7969),
    (sym_assignment, STATE 12425), (sym_augmented_assignment, STATE 12425),
    (sym_pattern_list, STATE 8578), (sym_yield, STATE 12425), (sym_attribute, STATE 6836),
    (sym_subscript, STATE 6838), (sym_call, STATE 6845), (sym_mlir_type, STATE 7017),
    (sym_list, STATE 7017), (sym_set, STATE 7017), (sym_tuple, STATE 7017),
    (sym_dictionary, STATE 7017), (sym_struct_literal, STATE 7017),
    (sym_list_comprehension, STATE 7017), (sym_dictionary_comprehension, STATE 7017),
    (sym_set_comprehension, STATE 7017), (sym_generator_expression, STATE 7017),
    (sym_parenthesized_expression, STATE 7017), (sym_conditional_expression, STATE 7969),
    (sym_concatenated_string, STATE 7017), (sym_string, STATE 6751), (sym_await, STATE 7017),
    (aux_sym_module_repeat1, STATE 925), (aux_sym_decorated_definition_repeat1, STATE 3670),
    (sym_identifier, ACTIONS 9), (anon_sym_import, ACTIONS 11), (anon_sym_from, ACTIONS 13),
    (anon_sym_LPAREN, ACTIONS 15), (anon_sym_STAR, ACTIONS 17), (anon_sym_print, ACTIONS 19),
    (anon_sym_comptime, ACTIONS 99), (anon_sym_assert, ACTIONS 23),
    (anon_sym___comptime_assert, ACTIONS 25), (anon_sym_return, ACTIONS 27),
    (anon_sym_del, ACTIONS 29), (anon_sym_raise, ACTIONS 31), (anon_sym_pass, ACTIONS 33),
    (anon_sym_break, ACTIONS 35), (anon_sym_continue, ACTIONS 37),
    (anon_sym___extension, ACTIONS 101), (anon_sym___mlir_region, ACTIONS 103),
    (anon_sym_if, ACTIONS 105), (anon_sym_match, ACTIONS 107), (anon_sym_async, ACTIONS 109),
    (anon_sym_for, ACTIONS 111), (anon_sym_while, ACTIONS 113), (anon_sym_try, ACTIONS 115),
    (anon_sym_with, ACTIONS 117), (anon_sym_def, ACTIONS 119), (anon_sym_fn, ACTIONS 119),
    (anon_sym_LBRACK, ACTIONS 59), (anon_sym_LBRACE, ACTIONS 61), (anon_sym_global, ACTIONS 63),
    (anon_sym_nonlocal, ACTIONS 65), (anon_sym_exec, ACTIONS 67), (anon_sym_type, ACTIONS 69),
    (anon_sym_class, ACTIONS 121), (anon_sym_struct, ACTIONS 121), (anon_sym_mut, ACTIONS 73),
    (anon_sym_out, ACTIONS 73), (anon_sym_trait, ACTIONS 123), (anon_sym_AT, ACTIONS 77),
    (anon_sym_DASH, ACTIONS 79), (anon_sym_PLUS, ACTIONS 79), (anon_sym_ref, ACTIONS 81),
    (anon_sym_var, ACTIONS 81), (anon_sym_not, ACTIONS 83), (anon_sym_TILDE, ACTIONS 79),
    (anon_sym_lambda, ACTIONS 85), (anon_sym_yield, ACTIONS 87), (sym_ellipsis, ACTIONS 89),
    (anon_sym___mlir_type, ACTIONS 91), (sym_integer, ACTIONS 93), (sym_float, ACTIONS 89),
    (anon_sym_await, ACTIONS 95), (sym_true, ACTIONS 93), (sym_false, ACTIONS 93),
    (sym_none, ACTIONS 93), (sym_comment, ACTIONS 3), (sym_line_continuation, ACTIONS 3),
    (sym__dedent, ACTIONS 129), (sym_string_start, ACTIONS 97)]"

definition parse_table_388 :: "(nat \<times> nat) list" where "parse_table_388 = [
    (sym__statement, STATE 925), (sym__simple_statements, STATE 925),
    (sym_import_statement, STATE 11814), (sym_future_import_statement, STATE 11814),
    (sym_import_from_statement, STATE 11814), (sym_print_statement, STATE 11814),
    (sym_assert_statement, STATE 11814), (sym_comptime_assert_statement, STATE 11814),
    (sym_expression_statement, STATE 11814), (sym_tuple_expression, STATE 12425),
    (sym_named_expression, STATE 7969), (sym__named_expression_lhs, STATE 12752),
    (sym_return_statement, STATE 11814), (sym_delete_statement, STATE 11814),
    (sym_raise_statement, STATE 11814), (sym_pass_statement, STATE 11814),
    (sym_break_statement, STATE 11814), (sym_continue_statement, STATE 11814),
    (sym_extension_definition, STATE 925), (sym_mlir_region, STATE 925),
    (sym_comptime_statement, STATE 925), (sym_if_statement, STATE 925),
    (sym_match_statement, STATE 925), (sym_for_statement, STATE 925),
    (sym_while_statement, STATE 925), (sym_try_statement, STATE 925),
    (sym_with_statement, STATE 925), (sym_function_definition, STATE 925),
    (sym_global_statement, STATE 11814), (sym_nonlocal_statement, STATE 11814),
    (sym_exec_statement, STATE 11814), (sym_type_alias_statement, STATE 11814),
    (sym_parameterized_alias_statement, STATE 11814), (sym_class_definition, STATE 925),
    (sym_trait_definition, STATE 925), (sym_decorated_definition, STATE 925),
    (sym_decorator, STATE 3670), (sym_block, STATE 6453), (sym_pattern, STATE 8086),
    (sym_tuple_pattern, STATE 8101), (sym_list_pattern, STATE 8101),
    (sym_list_splat_pattern, STATE 6819), (sym_as_pattern, STATE 7969),
    (sym_expression, STATE 9883), (sym_primary_expression, STATE 7326),
    (sym_comptime_expression, STATE 7017), (sym_transfer_expression, STATE 7017),
    (sym_not_operator, STATE 7969), (sym_boolean_operator, STATE 7969),
    (sym_binary_operator, STATE 7017), (sym_unary_operator, STATE 7017),
    (sym_comparison_operator, STATE 7969), (sym_lambda, STATE 7969),
    (sym_assignment, STATE 12425), (sym_augmented_assignment, STATE 12425),
    (sym_pattern_list, STATE 8578), (sym_yield, STATE 12425), (sym_attribute, STATE 6836),
    (sym_subscript, STATE 6838), (sym_call, STATE 6845), (sym_mlir_type, STATE 7017),
    (sym_list, STATE 7017), (sym_set, STATE 7017), (sym_tuple, STATE 7017),
    (sym_dictionary, STATE 7017), (sym_struct_literal, STATE 7017),
    (sym_list_comprehension, STATE 7017), (sym_dictionary_comprehension, STATE 7017),
    (sym_set_comprehension, STATE 7017), (sym_generator_expression, STATE 7017),
    (sym_parenthesized_expression, STATE 7017), (sym_conditional_expression, STATE 7969),
    (sym_concatenated_string, STATE 7017), (sym_string, STATE 6751), (sym_await, STATE 7017),
    (aux_sym_module_repeat1, STATE 925), (aux_sym_decorated_definition_repeat1, STATE 3670),
    (sym_identifier, ACTIONS 9), (anon_sym_import, ACTIONS 11), (anon_sym_from, ACTIONS 13),
    (anon_sym_LPAREN, ACTIONS 15), (anon_sym_STAR, ACTIONS 17), (anon_sym_print, ACTIONS 19),
    (anon_sym_comptime, ACTIONS 99), (anon_sym_assert, ACTIONS 23),
    (anon_sym___comptime_assert, ACTIONS 25), (anon_sym_return, ACTIONS 27),
    (anon_sym_del, ACTIONS 29), (anon_sym_raise, ACTIONS 31), (anon_sym_pass, ACTIONS 33),
    (anon_sym_break, ACTIONS 35), (anon_sym_continue, ACTIONS 37),
    (anon_sym___extension, ACTIONS 101), (anon_sym___mlir_region, ACTIONS 103),
    (anon_sym_if, ACTIONS 105), (anon_sym_match, ACTIONS 107), (anon_sym_async, ACTIONS 109),
    (anon_sym_for, ACTIONS 111), (anon_sym_while, ACTIONS 113), (anon_sym_try, ACTIONS 115),
    (anon_sym_with, ACTIONS 117), (anon_sym_def, ACTIONS 119), (anon_sym_fn, ACTIONS 119),
    (anon_sym_LBRACK, ACTIONS 59), (anon_sym_LBRACE, ACTIONS 61), (anon_sym_global, ACTIONS 63),
    (anon_sym_nonlocal, ACTIONS 65), (anon_sym_exec, ACTIONS 67), (anon_sym_type, ACTIONS 69),
    (anon_sym_class, ACTIONS 121), (anon_sym_struct, ACTIONS 121), (anon_sym_mut, ACTIONS 73),
    (anon_sym_out, ACTIONS 73), (anon_sym_trait, ACTIONS 123), (anon_sym_AT, ACTIONS 77),
    (anon_sym_DASH, ACTIONS 79), (anon_sym_PLUS, ACTIONS 79), (anon_sym_ref, ACTIONS 81),
    (anon_sym_var, ACTIONS 81), (anon_sym_not, ACTIONS 83), (anon_sym_TILDE, ACTIONS 79),
    (anon_sym_lambda, ACTIONS 85), (anon_sym_yield, ACTIONS 87), (sym_ellipsis, ACTIONS 89),
    (anon_sym___mlir_type, ACTIONS 91), (sym_integer, ACTIONS 93), (sym_float, ACTIONS 89),
    (anon_sym_await, ACTIONS 95), (sym_true, ACTIONS 93), (sym_false, ACTIONS 93),
    (sym_none, ACTIONS 93), (sym_comment, ACTIONS 3), (sym_line_continuation, ACTIONS 3),
    (sym__dedent, ACTIONS 129), (sym_string_start, ACTIONS 97)]"

definition parse_table_389 :: "(nat \<times> nat) list" where "parse_table_389 = [
    (sym__statement, STATE 925), (sym__simple_statements, STATE 925),
    (sym_import_statement, STATE 11814), (sym_future_import_statement, STATE 11814),
    (sym_import_from_statement, STATE 11814), (sym_print_statement, STATE 11814),
    (sym_assert_statement, STATE 11814), (sym_comptime_assert_statement, STATE 11814),
    (sym_expression_statement, STATE 11814), (sym_tuple_expression, STATE 12425),
    (sym_named_expression, STATE 7969), (sym__named_expression_lhs, STATE 12752),
    (sym_return_statement, STATE 11814), (sym_delete_statement, STATE 11814),
    (sym_raise_statement, STATE 11814), (sym_pass_statement, STATE 11814),
    (sym_break_statement, STATE 11814), (sym_continue_statement, STATE 11814),
    (sym_extension_definition, STATE 925), (sym_mlir_region, STATE 925),
    (sym_comptime_statement, STATE 925), (sym_if_statement, STATE 925),
    (sym_match_statement, STATE 925), (sym_for_statement, STATE 925),
    (sym_while_statement, STATE 925), (sym_try_statement, STATE 925),
    (sym_with_statement, STATE 925), (sym_function_definition, STATE 925),
    (sym_global_statement, STATE 11814), (sym_nonlocal_statement, STATE 11814),
    (sym_exec_statement, STATE 11814), (sym_type_alias_statement, STATE 11814),
    (sym_parameterized_alias_statement, STATE 11814), (sym_class_definition, STATE 925),
    (sym_trait_definition, STATE 925), (sym_decorated_definition, STATE 925),
    (sym_decorator, STATE 3670), (sym_block, STATE 6454), (sym_pattern, STATE 8086),
    (sym_tuple_pattern, STATE 8101), (sym_list_pattern, STATE 8101),
    (sym_list_splat_pattern, STATE 6819), (sym_as_pattern, STATE 7969),
    (sym_expression, STATE 9883), (sym_primary_expression, STATE 7326),
    (sym_comptime_expression, STATE 7017), (sym_transfer_expression, STATE 7017),
    (sym_not_operator, STATE 7969), (sym_boolean_operator, STATE 7969),
    (sym_binary_operator, STATE 7017), (sym_unary_operator, STATE 7017),
    (sym_comparison_operator, STATE 7969), (sym_lambda, STATE 7969),
    (sym_assignment, STATE 12425), (sym_augmented_assignment, STATE 12425),
    (sym_pattern_list, STATE 8578), (sym_yield, STATE 12425), (sym_attribute, STATE 6836),
    (sym_subscript, STATE 6838), (sym_call, STATE 6845), (sym_mlir_type, STATE 7017),
    (sym_list, STATE 7017), (sym_set, STATE 7017), (sym_tuple, STATE 7017),
    (sym_dictionary, STATE 7017), (sym_struct_literal, STATE 7017),
    (sym_list_comprehension, STATE 7017), (sym_dictionary_comprehension, STATE 7017),
    (sym_set_comprehension, STATE 7017), (sym_generator_expression, STATE 7017),
    (sym_parenthesized_expression, STATE 7017), (sym_conditional_expression, STATE 7969),
    (sym_concatenated_string, STATE 7017), (sym_string, STATE 6751), (sym_await, STATE 7017),
    (aux_sym_module_repeat1, STATE 925), (aux_sym_decorated_definition_repeat1, STATE 3670),
    (sym_identifier, ACTIONS 9), (anon_sym_import, ACTIONS 11), (anon_sym_from, ACTIONS 13),
    (anon_sym_LPAREN, ACTIONS 15), (anon_sym_STAR, ACTIONS 17), (anon_sym_print, ACTIONS 19),
    (anon_sym_comptime, ACTIONS 99), (anon_sym_assert, ACTIONS 23),
    (anon_sym___comptime_assert, ACTIONS 25), (anon_sym_return, ACTIONS 27),
    (anon_sym_del, ACTIONS 29), (anon_sym_raise, ACTIONS 31), (anon_sym_pass, ACTIONS 33),
    (anon_sym_break, ACTIONS 35), (anon_sym_continue, ACTIONS 37),
    (anon_sym___extension, ACTIONS 101), (anon_sym___mlir_region, ACTIONS 103),
    (anon_sym_if, ACTIONS 105), (anon_sym_match, ACTIONS 107), (anon_sym_async, ACTIONS 109),
    (anon_sym_for, ACTIONS 111), (anon_sym_while, ACTIONS 113), (anon_sym_try, ACTIONS 115),
    (anon_sym_with, ACTIONS 117), (anon_sym_def, ACTIONS 119), (anon_sym_fn, ACTIONS 119),
    (anon_sym_LBRACK, ACTIONS 59), (anon_sym_LBRACE, ACTIONS 61), (anon_sym_global, ACTIONS 63),
    (anon_sym_nonlocal, ACTIONS 65), (anon_sym_exec, ACTIONS 67), (anon_sym_type, ACTIONS 69),
    (anon_sym_class, ACTIONS 121), (anon_sym_struct, ACTIONS 121), (anon_sym_mut, ACTIONS 73),
    (anon_sym_out, ACTIONS 73), (anon_sym_trait, ACTIONS 123), (anon_sym_AT, ACTIONS 77),
    (anon_sym_DASH, ACTIONS 79), (anon_sym_PLUS, ACTIONS 79), (anon_sym_ref, ACTIONS 81),
    (anon_sym_var, ACTIONS 81), (anon_sym_not, ACTIONS 83), (anon_sym_TILDE, ACTIONS 79),
    (anon_sym_lambda, ACTIONS 85), (anon_sym_yield, ACTIONS 87), (sym_ellipsis, ACTIONS 89),
    (anon_sym___mlir_type, ACTIONS 91), (sym_integer, ACTIONS 93), (sym_float, ACTIONS 89),
    (anon_sym_await, ACTIONS 95), (sym_true, ACTIONS 93), (sym_false, ACTIONS 93),
    (sym_none, ACTIONS 93), (sym_comment, ACTIONS 3), (sym_line_continuation, ACTIONS 3),
    (sym__dedent, ACTIONS 129), (sym_string_start, ACTIONS 97)]"

definition parse_table_390 :: "(nat \<times> nat) list" where "parse_table_390 = [
    (sym__statement, STATE 925), (sym__simple_statements, STATE 925),
    (sym_import_statement, STATE 11814), (sym_future_import_statement, STATE 11814),
    (sym_import_from_statement, STATE 11814), (sym_print_statement, STATE 11814),
    (sym_assert_statement, STATE 11814), (sym_comptime_assert_statement, STATE 11814),
    (sym_expression_statement, STATE 11814), (sym_tuple_expression, STATE 12425),
    (sym_named_expression, STATE 7969), (sym__named_expression_lhs, STATE 12752),
    (sym_return_statement, STATE 11814), (sym_delete_statement, STATE 11814),
    (sym_raise_statement, STATE 11814), (sym_pass_statement, STATE 11814),
    (sym_break_statement, STATE 11814), (sym_continue_statement, STATE 11814),
    (sym_extension_definition, STATE 925), (sym_mlir_region, STATE 925),
    (sym_comptime_statement, STATE 925), (sym_if_statement, STATE 925),
    (sym_match_statement, STATE 925), (sym_for_statement, STATE 925),
    (sym_while_statement, STATE 925), (sym_try_statement, STATE 925),
    (sym_with_statement, STATE 925), (sym_function_definition, STATE 925),
    (sym_global_statement, STATE 11814), (sym_nonlocal_statement, STATE 11814),
    (sym_exec_statement, STATE 11814), (sym_type_alias_statement, STATE 11814),
    (sym_parameterized_alias_statement, STATE 11814), (sym_class_definition, STATE 925),
    (sym_trait_definition, STATE 925), (sym_decorated_definition, STATE 925),
    (sym_decorator, STATE 3670), (sym_block, STATE 6455), (sym_pattern, STATE 8086),
    (sym_tuple_pattern, STATE 8101), (sym_list_pattern, STATE 8101),
    (sym_list_splat_pattern, STATE 6819), (sym_as_pattern, STATE 7969),
    (sym_expression, STATE 9883), (sym_primary_expression, STATE 7326),
    (sym_comptime_expression, STATE 7017), (sym_transfer_expression, STATE 7017),
    (sym_not_operator, STATE 7969), (sym_boolean_operator, STATE 7969),
    (sym_binary_operator, STATE 7017), (sym_unary_operator, STATE 7017),
    (sym_comparison_operator, STATE 7969), (sym_lambda, STATE 7969),
    (sym_assignment, STATE 12425), (sym_augmented_assignment, STATE 12425),
    (sym_pattern_list, STATE 8578), (sym_yield, STATE 12425), (sym_attribute, STATE 6836),
    (sym_subscript, STATE 6838), (sym_call, STATE 6845), (sym_mlir_type, STATE 7017),
    (sym_list, STATE 7017), (sym_set, STATE 7017), (sym_tuple, STATE 7017),
    (sym_dictionary, STATE 7017), (sym_struct_literal, STATE 7017),
    (sym_list_comprehension, STATE 7017), (sym_dictionary_comprehension, STATE 7017),
    (sym_set_comprehension, STATE 7017), (sym_generator_expression, STATE 7017),
    (sym_parenthesized_expression, STATE 7017), (sym_conditional_expression, STATE 7969),
    (sym_concatenated_string, STATE 7017), (sym_string, STATE 6751), (sym_await, STATE 7017),
    (aux_sym_module_repeat1, STATE 925), (aux_sym_decorated_definition_repeat1, STATE 3670),
    (sym_identifier, ACTIONS 9), (anon_sym_import, ACTIONS 11), (anon_sym_from, ACTIONS 13),
    (anon_sym_LPAREN, ACTIONS 15), (anon_sym_STAR, ACTIONS 17), (anon_sym_print, ACTIONS 19),
    (anon_sym_comptime, ACTIONS 99), (anon_sym_assert, ACTIONS 23),
    (anon_sym___comptime_assert, ACTIONS 25), (anon_sym_return, ACTIONS 27),
    (anon_sym_del, ACTIONS 29), (anon_sym_raise, ACTIONS 31), (anon_sym_pass, ACTIONS 33),
    (anon_sym_break, ACTIONS 35), (anon_sym_continue, ACTIONS 37),
    (anon_sym___extension, ACTIONS 101), (anon_sym___mlir_region, ACTIONS 103),
    (anon_sym_if, ACTIONS 105), (anon_sym_match, ACTIONS 107), (anon_sym_async, ACTIONS 109),
    (anon_sym_for, ACTIONS 111), (anon_sym_while, ACTIONS 113), (anon_sym_try, ACTIONS 115),
    (anon_sym_with, ACTIONS 117), (anon_sym_def, ACTIONS 119), (anon_sym_fn, ACTIONS 119),
    (anon_sym_LBRACK, ACTIONS 59), (anon_sym_LBRACE, ACTIONS 61), (anon_sym_global, ACTIONS 63),
    (anon_sym_nonlocal, ACTIONS 65), (anon_sym_exec, ACTIONS 67), (anon_sym_type, ACTIONS 69),
    (anon_sym_class, ACTIONS 121), (anon_sym_struct, ACTIONS 121), (anon_sym_mut, ACTIONS 73),
    (anon_sym_out, ACTIONS 73), (anon_sym_trait, ACTIONS 123), (anon_sym_AT, ACTIONS 77),
    (anon_sym_DASH, ACTIONS 79), (anon_sym_PLUS, ACTIONS 79), (anon_sym_ref, ACTIONS 81),
    (anon_sym_var, ACTIONS 81), (anon_sym_not, ACTIONS 83), (anon_sym_TILDE, ACTIONS 79),
    (anon_sym_lambda, ACTIONS 85), (anon_sym_yield, ACTIONS 87), (sym_ellipsis, ACTIONS 89),
    (anon_sym___mlir_type, ACTIONS 91), (sym_integer, ACTIONS 93), (sym_float, ACTIONS 89),
    (anon_sym_await, ACTIONS 95), (sym_true, ACTIONS 93), (sym_false, ACTIONS 93),
    (sym_none, ACTIONS 93), (sym_comment, ACTIONS 3), (sym_line_continuation, ACTIONS 3),
    (sym__dedent, ACTIONS 129), (sym_string_start, ACTIONS 97)]"

definition parse_table_391 :: "(nat \<times> nat) list" where "parse_table_391 = [
    (sym__statement, STATE 925), (sym__simple_statements, STATE 925),
    (sym_import_statement, STATE 11814), (sym_future_import_statement, STATE 11814),
    (sym_import_from_statement, STATE 11814), (sym_print_statement, STATE 11814),
    (sym_assert_statement, STATE 11814), (sym_comptime_assert_statement, STATE 11814),
    (sym_expression_statement, STATE 11814), (sym_tuple_expression, STATE 12425),
    (sym_named_expression, STATE 7969), (sym__named_expression_lhs, STATE 12752),
    (sym_return_statement, STATE 11814), (sym_delete_statement, STATE 11814),
    (sym_raise_statement, STATE 11814), (sym_pass_statement, STATE 11814),
    (sym_break_statement, STATE 11814), (sym_continue_statement, STATE 11814),
    (sym_extension_definition, STATE 925), (sym_mlir_region, STATE 925),
    (sym_comptime_statement, STATE 925), (sym_if_statement, STATE 925),
    (sym_match_statement, STATE 925), (sym_for_statement, STATE 925),
    (sym_while_statement, STATE 925), (sym_try_statement, STATE 925),
    (sym_with_statement, STATE 925), (sym_function_definition, STATE 925),
    (sym_global_statement, STATE 11814), (sym_nonlocal_statement, STATE 11814),
    (sym_exec_statement, STATE 11814), (sym_type_alias_statement, STATE 11814),
    (sym_parameterized_alias_statement, STATE 11814), (sym_class_definition, STATE 925),
    (sym_trait_definition, STATE 925), (sym_decorated_definition, STATE 925),
    (sym_decorator, STATE 3670), (sym_block, STATE 6456), (sym_pattern, STATE 8086),
    (sym_tuple_pattern, STATE 8101), (sym_list_pattern, STATE 8101),
    (sym_list_splat_pattern, STATE 6819), (sym_as_pattern, STATE 7969),
    (sym_expression, STATE 9883), (sym_primary_expression, STATE 7326),
    (sym_comptime_expression, STATE 7017), (sym_transfer_expression, STATE 7017),
    (sym_not_operator, STATE 7969), (sym_boolean_operator, STATE 7969),
    (sym_binary_operator, STATE 7017), (sym_unary_operator, STATE 7017),
    (sym_comparison_operator, STATE 7969), (sym_lambda, STATE 7969),
    (sym_assignment, STATE 12425), (sym_augmented_assignment, STATE 12425),
    (sym_pattern_list, STATE 8578), (sym_yield, STATE 12425), (sym_attribute, STATE 6836),
    (sym_subscript, STATE 6838), (sym_call, STATE 6845), (sym_mlir_type, STATE 7017),
    (sym_list, STATE 7017), (sym_set, STATE 7017), (sym_tuple, STATE 7017),
    (sym_dictionary, STATE 7017), (sym_struct_literal, STATE 7017),
    (sym_list_comprehension, STATE 7017), (sym_dictionary_comprehension, STATE 7017),
    (sym_set_comprehension, STATE 7017), (sym_generator_expression, STATE 7017),
    (sym_parenthesized_expression, STATE 7017), (sym_conditional_expression, STATE 7969),
    (sym_concatenated_string, STATE 7017), (sym_string, STATE 6751), (sym_await, STATE 7017),
    (aux_sym_module_repeat1, STATE 925), (aux_sym_decorated_definition_repeat1, STATE 3670),
    (sym_identifier, ACTIONS 9), (anon_sym_import, ACTIONS 11), (anon_sym_from, ACTIONS 13),
    (anon_sym_LPAREN, ACTIONS 15), (anon_sym_STAR, ACTIONS 17), (anon_sym_print, ACTIONS 19),
    (anon_sym_comptime, ACTIONS 99), (anon_sym_assert, ACTIONS 23),
    (anon_sym___comptime_assert, ACTIONS 25), (anon_sym_return, ACTIONS 27),
    (anon_sym_del, ACTIONS 29), (anon_sym_raise, ACTIONS 31), (anon_sym_pass, ACTIONS 33),
    (anon_sym_break, ACTIONS 35), (anon_sym_continue, ACTIONS 37),
    (anon_sym___extension, ACTIONS 101), (anon_sym___mlir_region, ACTIONS 103),
    (anon_sym_if, ACTIONS 105), (anon_sym_match, ACTIONS 107), (anon_sym_async, ACTIONS 109),
    (anon_sym_for, ACTIONS 111), (anon_sym_while, ACTIONS 113), (anon_sym_try, ACTIONS 115),
    (anon_sym_with, ACTIONS 117), (anon_sym_def, ACTIONS 119), (anon_sym_fn, ACTIONS 119),
    (anon_sym_LBRACK, ACTIONS 59), (anon_sym_LBRACE, ACTIONS 61), (anon_sym_global, ACTIONS 63),
    (anon_sym_nonlocal, ACTIONS 65), (anon_sym_exec, ACTIONS 67), (anon_sym_type, ACTIONS 69),
    (anon_sym_class, ACTIONS 121), (anon_sym_struct, ACTIONS 121), (anon_sym_mut, ACTIONS 73),
    (anon_sym_out, ACTIONS 73), (anon_sym_trait, ACTIONS 123), (anon_sym_AT, ACTIONS 77),
    (anon_sym_DASH, ACTIONS 79), (anon_sym_PLUS, ACTIONS 79), (anon_sym_ref, ACTIONS 81),
    (anon_sym_var, ACTIONS 81), (anon_sym_not, ACTIONS 83), (anon_sym_TILDE, ACTIONS 79),
    (anon_sym_lambda, ACTIONS 85), (anon_sym_yield, ACTIONS 87), (sym_ellipsis, ACTIONS 89),
    (anon_sym___mlir_type, ACTIONS 91), (sym_integer, ACTIONS 93), (sym_float, ACTIONS 89),
    (anon_sym_await, ACTIONS 95), (sym_true, ACTIONS 93), (sym_false, ACTIONS 93),
    (sym_none, ACTIONS 93), (sym_comment, ACTIONS 3), (sym_line_continuation, ACTIONS 3),
    (sym__dedent, ACTIONS 129), (sym_string_start, ACTIONS 97)]"

definition parse_table_392 :: "(nat \<times> nat) list" where "parse_table_392 = [
    (sym__statement, STATE 925), (sym__simple_statements, STATE 925),
    (sym_import_statement, STATE 11814), (sym_future_import_statement, STATE 11814),
    (sym_import_from_statement, STATE 11814), (sym_print_statement, STATE 11814),
    (sym_assert_statement, STATE 11814), (sym_comptime_assert_statement, STATE 11814),
    (sym_expression_statement, STATE 11814), (sym_tuple_expression, STATE 12425),
    (sym_named_expression, STATE 7969), (sym__named_expression_lhs, STATE 12752),
    (sym_return_statement, STATE 11814), (sym_delete_statement, STATE 11814),
    (sym_raise_statement, STATE 11814), (sym_pass_statement, STATE 11814),
    (sym_break_statement, STATE 11814), (sym_continue_statement, STATE 11814),
    (sym_extension_definition, STATE 925), (sym_mlir_region, STATE 925),
    (sym_comptime_statement, STATE 925), (sym_if_statement, STATE 925),
    (sym_match_statement, STATE 925), (sym_for_statement, STATE 925),
    (sym_while_statement, STATE 925), (sym_try_statement, STATE 925),
    (sym_with_statement, STATE 925), (sym_function_definition, STATE 925),
    (sym_global_statement, STATE 11814), (sym_nonlocal_statement, STATE 11814),
    (sym_exec_statement, STATE 11814), (sym_type_alias_statement, STATE 11814),
    (sym_parameterized_alias_statement, STATE 11814), (sym_class_definition, STATE 925),
    (sym_trait_definition, STATE 925), (sym_decorated_definition, STATE 925),
    (sym_decorator, STATE 3670), (sym_block, STATE 6459), (sym_pattern, STATE 8086),
    (sym_tuple_pattern, STATE 8101), (sym_list_pattern, STATE 8101),
    (sym_list_splat_pattern, STATE 6819), (sym_as_pattern, STATE 7969),
    (sym_expression, STATE 9883), (sym_primary_expression, STATE 7326),
    (sym_comptime_expression, STATE 7017), (sym_transfer_expression, STATE 7017),
    (sym_not_operator, STATE 7969), (sym_boolean_operator, STATE 7969),
    (sym_binary_operator, STATE 7017), (sym_unary_operator, STATE 7017),
    (sym_comparison_operator, STATE 7969), (sym_lambda, STATE 7969),
    (sym_assignment, STATE 12425), (sym_augmented_assignment, STATE 12425),
    (sym_pattern_list, STATE 8578), (sym_yield, STATE 12425), (sym_attribute, STATE 6836),
    (sym_subscript, STATE 6838), (sym_call, STATE 6845), (sym_mlir_type, STATE 7017),
    (sym_list, STATE 7017), (sym_set, STATE 7017), (sym_tuple, STATE 7017),
    (sym_dictionary, STATE 7017), (sym_struct_literal, STATE 7017),
    (sym_list_comprehension, STATE 7017), (sym_dictionary_comprehension, STATE 7017),
    (sym_set_comprehension, STATE 7017), (sym_generator_expression, STATE 7017),
    (sym_parenthesized_expression, STATE 7017), (sym_conditional_expression, STATE 7969),
    (sym_concatenated_string, STATE 7017), (sym_string, STATE 6751), (sym_await, STATE 7017),
    (aux_sym_module_repeat1, STATE 925), (aux_sym_decorated_definition_repeat1, STATE 3670),
    (sym_identifier, ACTIONS 9), (anon_sym_import, ACTIONS 11), (anon_sym_from, ACTIONS 13),
    (anon_sym_LPAREN, ACTIONS 15), (anon_sym_STAR, ACTIONS 17), (anon_sym_print, ACTIONS 19),
    (anon_sym_comptime, ACTIONS 99), (anon_sym_assert, ACTIONS 23),
    (anon_sym___comptime_assert, ACTIONS 25), (anon_sym_return, ACTIONS 27),
    (anon_sym_del, ACTIONS 29), (anon_sym_raise, ACTIONS 31), (anon_sym_pass, ACTIONS 33),
    (anon_sym_break, ACTIONS 35), (anon_sym_continue, ACTIONS 37),
    (anon_sym___extension, ACTIONS 101), (anon_sym___mlir_region, ACTIONS 103),
    (anon_sym_if, ACTIONS 105), (anon_sym_match, ACTIONS 107), (anon_sym_async, ACTIONS 109),
    (anon_sym_for, ACTIONS 111), (anon_sym_while, ACTIONS 113), (anon_sym_try, ACTIONS 115),
    (anon_sym_with, ACTIONS 117), (anon_sym_def, ACTIONS 119), (anon_sym_fn, ACTIONS 119),
    (anon_sym_LBRACK, ACTIONS 59), (anon_sym_LBRACE, ACTIONS 61), (anon_sym_global, ACTIONS 63),
    (anon_sym_nonlocal, ACTIONS 65), (anon_sym_exec, ACTIONS 67), (anon_sym_type, ACTIONS 69),
    (anon_sym_class, ACTIONS 121), (anon_sym_struct, ACTIONS 121), (anon_sym_mut, ACTIONS 73),
    (anon_sym_out, ACTIONS 73), (anon_sym_trait, ACTIONS 123), (anon_sym_AT, ACTIONS 77),
    (anon_sym_DASH, ACTIONS 79), (anon_sym_PLUS, ACTIONS 79), (anon_sym_ref, ACTIONS 81),
    (anon_sym_var, ACTIONS 81), (anon_sym_not, ACTIONS 83), (anon_sym_TILDE, ACTIONS 79),
    (anon_sym_lambda, ACTIONS 85), (anon_sym_yield, ACTIONS 87), (sym_ellipsis, ACTIONS 89),
    (anon_sym___mlir_type, ACTIONS 91), (sym_integer, ACTIONS 93), (sym_float, ACTIONS 89),
    (anon_sym_await, ACTIONS 95), (sym_true, ACTIONS 93), (sym_false, ACTIONS 93),
    (sym_none, ACTIONS 93), (sym_comment, ACTIONS 3), (sym_line_continuation, ACTIONS 3),
    (sym__dedent, ACTIONS 129), (sym_string_start, ACTIONS 97)]"

definition parse_table_393 :: "(nat \<times> nat) list" where "parse_table_393 = [
    (sym__statement, STATE 925), (sym__simple_statements, STATE 925),
    (sym_import_statement, STATE 11814), (sym_future_import_statement, STATE 11814),
    (sym_import_from_statement, STATE 11814), (sym_print_statement, STATE 11814),
    (sym_assert_statement, STATE 11814), (sym_comptime_assert_statement, STATE 11814),
    (sym_expression_statement, STATE 11814), (sym_tuple_expression, STATE 12425),
    (sym_named_expression, STATE 7969), (sym__named_expression_lhs, STATE 12752),
    (sym_return_statement, STATE 11814), (sym_delete_statement, STATE 11814),
    (sym_raise_statement, STATE 11814), (sym_pass_statement, STATE 11814),
    (sym_break_statement, STATE 11814), (sym_continue_statement, STATE 11814),
    (sym_extension_definition, STATE 925), (sym_mlir_region, STATE 925),
    (sym_comptime_statement, STATE 925), (sym_if_statement, STATE 925),
    (sym_match_statement, STATE 925), (sym_for_statement, STATE 925),
    (sym_while_statement, STATE 925), (sym_try_statement, STATE 925),
    (sym_with_statement, STATE 925), (sym_function_definition, STATE 925),
    (sym_global_statement, STATE 11814), (sym_nonlocal_statement, STATE 11814),
    (sym_exec_statement, STATE 11814), (sym_type_alias_statement, STATE 11814),
    (sym_parameterized_alias_statement, STATE 11814), (sym_class_definition, STATE 925),
    (sym_trait_definition, STATE 925), (sym_decorated_definition, STATE 925),
    (sym_decorator, STATE 3670), (sym_block, STATE 6460), (sym_pattern, STATE 8086),
    (sym_tuple_pattern, STATE 8101), (sym_list_pattern, STATE 8101),
    (sym_list_splat_pattern, STATE 6819), (sym_as_pattern, STATE 7969),
    (sym_expression, STATE 9883), (sym_primary_expression, STATE 7326),
    (sym_comptime_expression, STATE 7017), (sym_transfer_expression, STATE 7017),
    (sym_not_operator, STATE 7969), (sym_boolean_operator, STATE 7969),
    (sym_binary_operator, STATE 7017), (sym_unary_operator, STATE 7017),
    (sym_comparison_operator, STATE 7969), (sym_lambda, STATE 7969),
    (sym_assignment, STATE 12425), (sym_augmented_assignment, STATE 12425),
    (sym_pattern_list, STATE 8578), (sym_yield, STATE 12425), (sym_attribute, STATE 6836),
    (sym_subscript, STATE 6838), (sym_call, STATE 6845), (sym_mlir_type, STATE 7017),
    (sym_list, STATE 7017), (sym_set, STATE 7017), (sym_tuple, STATE 7017),
    (sym_dictionary, STATE 7017), (sym_struct_literal, STATE 7017),
    (sym_list_comprehension, STATE 7017), (sym_dictionary_comprehension, STATE 7017),
    (sym_set_comprehension, STATE 7017), (sym_generator_expression, STATE 7017),
    (sym_parenthesized_expression, STATE 7017), (sym_conditional_expression, STATE 7969),
    (sym_concatenated_string, STATE 7017), (sym_string, STATE 6751), (sym_await, STATE 7017),
    (aux_sym_module_repeat1, STATE 925), (aux_sym_decorated_definition_repeat1, STATE 3670),
    (sym_identifier, ACTIONS 9), (anon_sym_import, ACTIONS 11), (anon_sym_from, ACTIONS 13),
    (anon_sym_LPAREN, ACTIONS 15), (anon_sym_STAR, ACTIONS 17), (anon_sym_print, ACTIONS 19),
    (anon_sym_comptime, ACTIONS 99), (anon_sym_assert, ACTIONS 23),
    (anon_sym___comptime_assert, ACTIONS 25), (anon_sym_return, ACTIONS 27),
    (anon_sym_del, ACTIONS 29), (anon_sym_raise, ACTIONS 31), (anon_sym_pass, ACTIONS 33),
    (anon_sym_break, ACTIONS 35), (anon_sym_continue, ACTIONS 37),
    (anon_sym___extension, ACTIONS 101), (anon_sym___mlir_region, ACTIONS 103),
    (anon_sym_if, ACTIONS 105), (anon_sym_match, ACTIONS 107), (anon_sym_async, ACTIONS 109),
    (anon_sym_for, ACTIONS 111), (anon_sym_while, ACTIONS 113), (anon_sym_try, ACTIONS 115),
    (anon_sym_with, ACTIONS 117), (anon_sym_def, ACTIONS 119), (anon_sym_fn, ACTIONS 119),
    (anon_sym_LBRACK, ACTIONS 59), (anon_sym_LBRACE, ACTIONS 61), (anon_sym_global, ACTIONS 63),
    (anon_sym_nonlocal, ACTIONS 65), (anon_sym_exec, ACTIONS 67), (anon_sym_type, ACTIONS 69),
    (anon_sym_class, ACTIONS 121), (anon_sym_struct, ACTIONS 121), (anon_sym_mut, ACTIONS 73),
    (anon_sym_out, ACTIONS 73), (anon_sym_trait, ACTIONS 123), (anon_sym_AT, ACTIONS 77),
    (anon_sym_DASH, ACTIONS 79), (anon_sym_PLUS, ACTIONS 79), (anon_sym_ref, ACTIONS 81),
    (anon_sym_var, ACTIONS 81), (anon_sym_not, ACTIONS 83), (anon_sym_TILDE, ACTIONS 79),
    (anon_sym_lambda, ACTIONS 85), (anon_sym_yield, ACTIONS 87), (sym_ellipsis, ACTIONS 89),
    (anon_sym___mlir_type, ACTIONS 91), (sym_integer, ACTIONS 93), (sym_float, ACTIONS 89),
    (anon_sym_await, ACTIONS 95), (sym_true, ACTIONS 93), (sym_false, ACTIONS 93),
    (sym_none, ACTIONS 93), (sym_comment, ACTIONS 3), (sym_line_continuation, ACTIONS 3),
    (sym__dedent, ACTIONS 129), (sym_string_start, ACTIONS 97)]"

definition parse_table_394 :: "(nat \<times> nat) list" where "parse_table_394 = [
    (sym__statement, STATE 925), (sym__simple_statements, STATE 925),
    (sym_import_statement, STATE 11814), (sym_future_import_statement, STATE 11814),
    (sym_import_from_statement, STATE 11814), (sym_print_statement, STATE 11814),
    (sym_assert_statement, STATE 11814), (sym_comptime_assert_statement, STATE 11814),
    (sym_expression_statement, STATE 11814), (sym_tuple_expression, STATE 12425),
    (sym_named_expression, STATE 7969), (sym__named_expression_lhs, STATE 12752),
    (sym_return_statement, STATE 11814), (sym_delete_statement, STATE 11814),
    (sym_raise_statement, STATE 11814), (sym_pass_statement, STATE 11814),
    (sym_break_statement, STATE 11814), (sym_continue_statement, STATE 11814),
    (sym_extension_definition, STATE 925), (sym_mlir_region, STATE 925),
    (sym_comptime_statement, STATE 925), (sym_if_statement, STATE 925),
    (sym_match_statement, STATE 925), (sym_for_statement, STATE 925),
    (sym_while_statement, STATE 925), (sym_try_statement, STATE 925),
    (sym_with_statement, STATE 925), (sym_function_definition, STATE 925),
    (sym_global_statement, STATE 11814), (sym_nonlocal_statement, STATE 11814),
    (sym_exec_statement, STATE 11814), (sym_type_alias_statement, STATE 11814),
    (sym_parameterized_alias_statement, STATE 11814), (sym_class_definition, STATE 925),
    (sym_trait_definition, STATE 925), (sym_decorated_definition, STATE 925),
    (sym_decorator, STATE 3670), (sym_block, STATE 6506), (sym_pattern, STATE 8086),
    (sym_tuple_pattern, STATE 8101), (sym_list_pattern, STATE 8101),
    (sym_list_splat_pattern, STATE 6819), (sym_as_pattern, STATE 7969),
    (sym_expression, STATE 9883), (sym_primary_expression, STATE 7326),
    (sym_comptime_expression, STATE 7017), (sym_transfer_expression, STATE 7017),
    (sym_not_operator, STATE 7969), (sym_boolean_operator, STATE 7969),
    (sym_binary_operator, STATE 7017), (sym_unary_operator, STATE 7017),
    (sym_comparison_operator, STATE 7969), (sym_lambda, STATE 7969),
    (sym_assignment, STATE 12425), (sym_augmented_assignment, STATE 12425),
    (sym_pattern_list, STATE 8578), (sym_yield, STATE 12425), (sym_attribute, STATE 6836),
    (sym_subscript, STATE 6838), (sym_call, STATE 6845), (sym_mlir_type, STATE 7017),
    (sym_list, STATE 7017), (sym_set, STATE 7017), (sym_tuple, STATE 7017),
    (sym_dictionary, STATE 7017), (sym_struct_literal, STATE 7017),
    (sym_list_comprehension, STATE 7017), (sym_dictionary_comprehension, STATE 7017),
    (sym_set_comprehension, STATE 7017), (sym_generator_expression, STATE 7017),
    (sym_parenthesized_expression, STATE 7017), (sym_conditional_expression, STATE 7969),
    (sym_concatenated_string, STATE 7017), (sym_string, STATE 6751), (sym_await, STATE 7017),
    (aux_sym_module_repeat1, STATE 925), (aux_sym_decorated_definition_repeat1, STATE 3670),
    (sym_identifier, ACTIONS 9), (anon_sym_import, ACTIONS 11), (anon_sym_from, ACTIONS 13),
    (anon_sym_LPAREN, ACTIONS 15), (anon_sym_STAR, ACTIONS 17), (anon_sym_print, ACTIONS 19),
    (anon_sym_comptime, ACTIONS 99), (anon_sym_assert, ACTIONS 23),
    (anon_sym___comptime_assert, ACTIONS 25), (anon_sym_return, ACTIONS 27),
    (anon_sym_del, ACTIONS 29), (anon_sym_raise, ACTIONS 31), (anon_sym_pass, ACTIONS 33),
    (anon_sym_break, ACTIONS 35), (anon_sym_continue, ACTIONS 37),
    (anon_sym___extension, ACTIONS 101), (anon_sym___mlir_region, ACTIONS 103),
    (anon_sym_if, ACTIONS 105), (anon_sym_match, ACTIONS 107), (anon_sym_async, ACTIONS 109),
    (anon_sym_for, ACTIONS 111), (anon_sym_while, ACTIONS 113), (anon_sym_try, ACTIONS 115),
    (anon_sym_with, ACTIONS 117), (anon_sym_def, ACTIONS 119), (anon_sym_fn, ACTIONS 119),
    (anon_sym_LBRACK, ACTIONS 59), (anon_sym_LBRACE, ACTIONS 61), (anon_sym_global, ACTIONS 63),
    (anon_sym_nonlocal, ACTIONS 65), (anon_sym_exec, ACTIONS 67), (anon_sym_type, ACTIONS 69),
    (anon_sym_class, ACTIONS 121), (anon_sym_struct, ACTIONS 121), (anon_sym_mut, ACTIONS 73),
    (anon_sym_out, ACTIONS 73), (anon_sym_trait, ACTIONS 123), (anon_sym_AT, ACTIONS 77),
    (anon_sym_DASH, ACTIONS 79), (anon_sym_PLUS, ACTIONS 79), (anon_sym_ref, ACTIONS 81),
    (anon_sym_var, ACTIONS 81), (anon_sym_not, ACTIONS 83), (anon_sym_TILDE, ACTIONS 79),
    (anon_sym_lambda, ACTIONS 85), (anon_sym_yield, ACTIONS 87), (sym_ellipsis, ACTIONS 89),
    (anon_sym___mlir_type, ACTIONS 91), (sym_integer, ACTIONS 93), (sym_float, ACTIONS 89),
    (anon_sym_await, ACTIONS 95), (sym_true, ACTIONS 93), (sym_false, ACTIONS 93),
    (sym_none, ACTIONS 93), (sym_comment, ACTIONS 3), (sym_line_continuation, ACTIONS 3),
    (sym__dedent, ACTIONS 129), (sym_string_start, ACTIONS 97)]"

definition parse_table_395 :: "(nat \<times> nat) list" where "parse_table_395 = [
    (sym__statement, STATE 925), (sym__simple_statements, STATE 925),
    (sym_import_statement, STATE 11814), (sym_future_import_statement, STATE 11814),
    (sym_import_from_statement, STATE 11814), (sym_print_statement, STATE 11814),
    (sym_assert_statement, STATE 11814), (sym_comptime_assert_statement, STATE 11814),
    (sym_expression_statement, STATE 11814), (sym_tuple_expression, STATE 12425),
    (sym_named_expression, STATE 7969), (sym__named_expression_lhs, STATE 12752),
    (sym_return_statement, STATE 11814), (sym_delete_statement, STATE 11814),
    (sym_raise_statement, STATE 11814), (sym_pass_statement, STATE 11814),
    (sym_break_statement, STATE 11814), (sym_continue_statement, STATE 11814),
    (sym_extension_definition, STATE 925), (sym_mlir_region, STATE 925),
    (sym_comptime_statement, STATE 925), (sym_if_statement, STATE 925),
    (sym_match_statement, STATE 925), (sym_for_statement, STATE 925),
    (sym_while_statement, STATE 925), (sym_try_statement, STATE 925),
    (sym_with_statement, STATE 925), (sym_function_definition, STATE 925),
    (sym_global_statement, STATE 11814), (sym_nonlocal_statement, STATE 11814),
    (sym_exec_statement, STATE 11814), (sym_type_alias_statement, STATE 11814),
    (sym_parameterized_alias_statement, STATE 11814), (sym_class_definition, STATE 925),
    (sym_trait_definition, STATE 925), (sym_decorated_definition, STATE 925),
    (sym_decorator, STATE 3670), (sym_block, STATE 6521), (sym_pattern, STATE 8086),
    (sym_tuple_pattern, STATE 8101), (sym_list_pattern, STATE 8101),
    (sym_list_splat_pattern, STATE 6819), (sym_as_pattern, STATE 7969),
    (sym_expression, STATE 9883), (sym_primary_expression, STATE 7326),
    (sym_comptime_expression, STATE 7017), (sym_transfer_expression, STATE 7017),
    (sym_not_operator, STATE 7969), (sym_boolean_operator, STATE 7969),
    (sym_binary_operator, STATE 7017), (sym_unary_operator, STATE 7017),
    (sym_comparison_operator, STATE 7969), (sym_lambda, STATE 7969),
    (sym_assignment, STATE 12425), (sym_augmented_assignment, STATE 12425),
    (sym_pattern_list, STATE 8578), (sym_yield, STATE 12425), (sym_attribute, STATE 6836),
    (sym_subscript, STATE 6838), (sym_call, STATE 6845), (sym_mlir_type, STATE 7017),
    (sym_list, STATE 7017), (sym_set, STATE 7017), (sym_tuple, STATE 7017),
    (sym_dictionary, STATE 7017), (sym_struct_literal, STATE 7017),
    (sym_list_comprehension, STATE 7017), (sym_dictionary_comprehension, STATE 7017),
    (sym_set_comprehension, STATE 7017), (sym_generator_expression, STATE 7017),
    (sym_parenthesized_expression, STATE 7017), (sym_conditional_expression, STATE 7969),
    (sym_concatenated_string, STATE 7017), (sym_string, STATE 6751), (sym_await, STATE 7017),
    (aux_sym_module_repeat1, STATE 925), (aux_sym_decorated_definition_repeat1, STATE 3670),
    (sym_identifier, ACTIONS 9), (anon_sym_import, ACTIONS 11), (anon_sym_from, ACTIONS 13),
    (anon_sym_LPAREN, ACTIONS 15), (anon_sym_STAR, ACTIONS 17), (anon_sym_print, ACTIONS 19),
    (anon_sym_comptime, ACTIONS 99), (anon_sym_assert, ACTIONS 23),
    (anon_sym___comptime_assert, ACTIONS 25), (anon_sym_return, ACTIONS 27),
    (anon_sym_del, ACTIONS 29), (anon_sym_raise, ACTIONS 31), (anon_sym_pass, ACTIONS 33),
    (anon_sym_break, ACTIONS 35), (anon_sym_continue, ACTIONS 37),
    (anon_sym___extension, ACTIONS 101), (anon_sym___mlir_region, ACTIONS 103),
    (anon_sym_if, ACTIONS 105), (anon_sym_match, ACTIONS 107), (anon_sym_async, ACTIONS 109),
    (anon_sym_for, ACTIONS 111), (anon_sym_while, ACTIONS 113), (anon_sym_try, ACTIONS 115),
    (anon_sym_with, ACTIONS 117), (anon_sym_def, ACTIONS 119), (anon_sym_fn, ACTIONS 119),
    (anon_sym_LBRACK, ACTIONS 59), (anon_sym_LBRACE, ACTIONS 61), (anon_sym_global, ACTIONS 63),
    (anon_sym_nonlocal, ACTIONS 65), (anon_sym_exec, ACTIONS 67), (anon_sym_type, ACTIONS 69),
    (anon_sym_class, ACTIONS 121), (anon_sym_struct, ACTIONS 121), (anon_sym_mut, ACTIONS 73),
    (anon_sym_out, ACTIONS 73), (anon_sym_trait, ACTIONS 123), (anon_sym_AT, ACTIONS 77),
    (anon_sym_DASH, ACTIONS 79), (anon_sym_PLUS, ACTIONS 79), (anon_sym_ref, ACTIONS 81),
    (anon_sym_var, ACTIONS 81), (anon_sym_not, ACTIONS 83), (anon_sym_TILDE, ACTIONS 79),
    (anon_sym_lambda, ACTIONS 85), (anon_sym_yield, ACTIONS 87), (sym_ellipsis, ACTIONS 89),
    (anon_sym___mlir_type, ACTIONS 91), (sym_integer, ACTIONS 93), (sym_float, ACTIONS 89),
    (anon_sym_await, ACTIONS 95), (sym_true, ACTIONS 93), (sym_false, ACTIONS 93),
    (sym_none, ACTIONS 93), (sym_comment, ACTIONS 3), (sym_line_continuation, ACTIONS 3),
    (sym__dedent, ACTIONS 129), (sym_string_start, ACTIONS 97)]"

definition parse_table_396 :: "(nat \<times> nat) list" where "parse_table_396 = [
    (sym__statement, STATE 925), (sym__simple_statements, STATE 925),
    (sym_import_statement, STATE 11814), (sym_future_import_statement, STATE 11814),
    (sym_import_from_statement, STATE 11814), (sym_print_statement, STATE 11814),
    (sym_assert_statement, STATE 11814), (sym_comptime_assert_statement, STATE 11814),
    (sym_expression_statement, STATE 11814), (sym_tuple_expression, STATE 12425),
    (sym_named_expression, STATE 7969), (sym__named_expression_lhs, STATE 12752),
    (sym_return_statement, STATE 11814), (sym_delete_statement, STATE 11814),
    (sym_raise_statement, STATE 11814), (sym_pass_statement, STATE 11814),
    (sym_break_statement, STATE 11814), (sym_continue_statement, STATE 11814),
    (sym_extension_definition, STATE 925), (sym_mlir_region, STATE 925),
    (sym_comptime_statement, STATE 925), (sym_if_statement, STATE 925),
    (sym_match_statement, STATE 925), (sym_for_statement, STATE 925),
    (sym_while_statement, STATE 925), (sym_try_statement, STATE 925),
    (sym_with_statement, STATE 925), (sym_function_definition, STATE 925),
    (sym_global_statement, STATE 11814), (sym_nonlocal_statement, STATE 11814),
    (sym_exec_statement, STATE 11814), (sym_type_alias_statement, STATE 11814),
    (sym_parameterized_alias_statement, STATE 11814), (sym_class_definition, STATE 925),
    (sym_trait_definition, STATE 925), (sym_decorated_definition, STATE 925),
    (sym_decorator, STATE 3670), (sym_block, STATE 6529), (sym_pattern, STATE 8086),
    (sym_tuple_pattern, STATE 8101), (sym_list_pattern, STATE 8101),
    (sym_list_splat_pattern, STATE 6819), (sym_as_pattern, STATE 7969),
    (sym_expression, STATE 9883), (sym_primary_expression, STATE 7326),
    (sym_comptime_expression, STATE 7017), (sym_transfer_expression, STATE 7017),
    (sym_not_operator, STATE 7969), (sym_boolean_operator, STATE 7969),
    (sym_binary_operator, STATE 7017), (sym_unary_operator, STATE 7017),
    (sym_comparison_operator, STATE 7969), (sym_lambda, STATE 7969),
    (sym_assignment, STATE 12425), (sym_augmented_assignment, STATE 12425),
    (sym_pattern_list, STATE 8578), (sym_yield, STATE 12425), (sym_attribute, STATE 6836),
    (sym_subscript, STATE 6838), (sym_call, STATE 6845), (sym_mlir_type, STATE 7017),
    (sym_list, STATE 7017), (sym_set, STATE 7017), (sym_tuple, STATE 7017),
    (sym_dictionary, STATE 7017), (sym_struct_literal, STATE 7017),
    (sym_list_comprehension, STATE 7017), (sym_dictionary_comprehension, STATE 7017),
    (sym_set_comprehension, STATE 7017), (sym_generator_expression, STATE 7017),
    (sym_parenthesized_expression, STATE 7017), (sym_conditional_expression, STATE 7969),
    (sym_concatenated_string, STATE 7017), (sym_string, STATE 6751), (sym_await, STATE 7017),
    (aux_sym_module_repeat1, STATE 925), (aux_sym_decorated_definition_repeat1, STATE 3670),
    (sym_identifier, ACTIONS 9), (anon_sym_import, ACTIONS 11), (anon_sym_from, ACTIONS 13),
    (anon_sym_LPAREN, ACTIONS 15), (anon_sym_STAR, ACTIONS 17), (anon_sym_print, ACTIONS 19),
    (anon_sym_comptime, ACTIONS 99), (anon_sym_assert, ACTIONS 23),
    (anon_sym___comptime_assert, ACTIONS 25), (anon_sym_return, ACTIONS 27),
    (anon_sym_del, ACTIONS 29), (anon_sym_raise, ACTIONS 31), (anon_sym_pass, ACTIONS 33),
    (anon_sym_break, ACTIONS 35), (anon_sym_continue, ACTIONS 37),
    (anon_sym___extension, ACTIONS 101), (anon_sym___mlir_region, ACTIONS 103),
    (anon_sym_if, ACTIONS 105), (anon_sym_match, ACTIONS 107), (anon_sym_async, ACTIONS 109),
    (anon_sym_for, ACTIONS 111), (anon_sym_while, ACTIONS 113), (anon_sym_try, ACTIONS 115),
    (anon_sym_with, ACTIONS 117), (anon_sym_def, ACTIONS 119), (anon_sym_fn, ACTIONS 119),
    (anon_sym_LBRACK, ACTIONS 59), (anon_sym_LBRACE, ACTIONS 61), (anon_sym_global, ACTIONS 63),
    (anon_sym_nonlocal, ACTIONS 65), (anon_sym_exec, ACTIONS 67), (anon_sym_type, ACTIONS 69),
    (anon_sym_class, ACTIONS 121), (anon_sym_struct, ACTIONS 121), (anon_sym_mut, ACTIONS 73),
    (anon_sym_out, ACTIONS 73), (anon_sym_trait, ACTIONS 123), (anon_sym_AT, ACTIONS 77),
    (anon_sym_DASH, ACTIONS 79), (anon_sym_PLUS, ACTIONS 79), (anon_sym_ref, ACTIONS 81),
    (anon_sym_var, ACTIONS 81), (anon_sym_not, ACTIONS 83), (anon_sym_TILDE, ACTIONS 79),
    (anon_sym_lambda, ACTIONS 85), (anon_sym_yield, ACTIONS 87), (sym_ellipsis, ACTIONS 89),
    (anon_sym___mlir_type, ACTIONS 91), (sym_integer, ACTIONS 93), (sym_float, ACTIONS 89),
    (anon_sym_await, ACTIONS 95), (sym_true, ACTIONS 93), (sym_false, ACTIONS 93),
    (sym_none, ACTIONS 93), (sym_comment, ACTIONS 3), (sym_line_continuation, ACTIONS 3),
    (sym__dedent, ACTIONS 129), (sym_string_start, ACTIONS 97)]"

definition parse_table_397 :: "(nat \<times> nat) list" where "parse_table_397 = [
    (sym__statement, STATE 925), (sym__simple_statements, STATE 925),
    (sym_import_statement, STATE 11814), (sym_future_import_statement, STATE 11814),
    (sym_import_from_statement, STATE 11814), (sym_print_statement, STATE 11814),
    (sym_assert_statement, STATE 11814), (sym_comptime_assert_statement, STATE 11814),
    (sym_expression_statement, STATE 11814), (sym_tuple_expression, STATE 12425),
    (sym_named_expression, STATE 7969), (sym__named_expression_lhs, STATE 12752),
    (sym_return_statement, STATE 11814), (sym_delete_statement, STATE 11814),
    (sym_raise_statement, STATE 11814), (sym_pass_statement, STATE 11814),
    (sym_break_statement, STATE 11814), (sym_continue_statement, STATE 11814),
    (sym_extension_definition, STATE 925), (sym_mlir_region, STATE 925),
    (sym_comptime_statement, STATE 925), (sym_if_statement, STATE 925),
    (sym_match_statement, STATE 925), (sym_for_statement, STATE 925),
    (sym_while_statement, STATE 925), (sym_try_statement, STATE 925),
    (sym_with_statement, STATE 925), (sym_function_definition, STATE 925),
    (sym_global_statement, STATE 11814), (sym_nonlocal_statement, STATE 11814),
    (sym_exec_statement, STATE 11814), (sym_type_alias_statement, STATE 11814),
    (sym_parameterized_alias_statement, STATE 11814), (sym_class_definition, STATE 925),
    (sym_trait_definition, STATE 925), (sym_decorated_definition, STATE 925),
    (sym_decorator, STATE 3670), (sym_block, STATE 6533), (sym_pattern, STATE 8086),
    (sym_tuple_pattern, STATE 8101), (sym_list_pattern, STATE 8101),
    (sym_list_splat_pattern, STATE 6819), (sym_as_pattern, STATE 7969),
    (sym_expression, STATE 9883), (sym_primary_expression, STATE 7326),
    (sym_comptime_expression, STATE 7017), (sym_transfer_expression, STATE 7017),
    (sym_not_operator, STATE 7969), (sym_boolean_operator, STATE 7969),
    (sym_binary_operator, STATE 7017), (sym_unary_operator, STATE 7017),
    (sym_comparison_operator, STATE 7969), (sym_lambda, STATE 7969),
    (sym_assignment, STATE 12425), (sym_augmented_assignment, STATE 12425),
    (sym_pattern_list, STATE 8578), (sym_yield, STATE 12425), (sym_attribute, STATE 6836),
    (sym_subscript, STATE 6838), (sym_call, STATE 6845), (sym_mlir_type, STATE 7017),
    (sym_list, STATE 7017), (sym_set, STATE 7017), (sym_tuple, STATE 7017),
    (sym_dictionary, STATE 7017), (sym_struct_literal, STATE 7017),
    (sym_list_comprehension, STATE 7017), (sym_dictionary_comprehension, STATE 7017),
    (sym_set_comprehension, STATE 7017), (sym_generator_expression, STATE 7017),
    (sym_parenthesized_expression, STATE 7017), (sym_conditional_expression, STATE 7969),
    (sym_concatenated_string, STATE 7017), (sym_string, STATE 6751), (sym_await, STATE 7017),
    (aux_sym_module_repeat1, STATE 925), (aux_sym_decorated_definition_repeat1, STATE 3670),
    (sym_identifier, ACTIONS 9), (anon_sym_import, ACTIONS 11), (anon_sym_from, ACTIONS 13),
    (anon_sym_LPAREN, ACTIONS 15), (anon_sym_STAR, ACTIONS 17), (anon_sym_print, ACTIONS 19),
    (anon_sym_comptime, ACTIONS 99), (anon_sym_assert, ACTIONS 23),
    (anon_sym___comptime_assert, ACTIONS 25), (anon_sym_return, ACTIONS 27),
    (anon_sym_del, ACTIONS 29), (anon_sym_raise, ACTIONS 31), (anon_sym_pass, ACTIONS 33),
    (anon_sym_break, ACTIONS 35), (anon_sym_continue, ACTIONS 37),
    (anon_sym___extension, ACTIONS 101), (anon_sym___mlir_region, ACTIONS 103),
    (anon_sym_if, ACTIONS 105), (anon_sym_match, ACTIONS 107), (anon_sym_async, ACTIONS 109),
    (anon_sym_for, ACTIONS 111), (anon_sym_while, ACTIONS 113), (anon_sym_try, ACTIONS 115),
    (anon_sym_with, ACTIONS 117), (anon_sym_def, ACTIONS 119), (anon_sym_fn, ACTIONS 119),
    (anon_sym_LBRACK, ACTIONS 59), (anon_sym_LBRACE, ACTIONS 61), (anon_sym_global, ACTIONS 63),
    (anon_sym_nonlocal, ACTIONS 65), (anon_sym_exec, ACTIONS 67), (anon_sym_type, ACTIONS 69),
    (anon_sym_class, ACTIONS 121), (anon_sym_struct, ACTIONS 121), (anon_sym_mut, ACTIONS 73),
    (anon_sym_out, ACTIONS 73), (anon_sym_trait, ACTIONS 123), (anon_sym_AT, ACTIONS 77),
    (anon_sym_DASH, ACTIONS 79), (anon_sym_PLUS, ACTIONS 79), (anon_sym_ref, ACTIONS 81),
    (anon_sym_var, ACTIONS 81), (anon_sym_not, ACTIONS 83), (anon_sym_TILDE, ACTIONS 79),
    (anon_sym_lambda, ACTIONS 85), (anon_sym_yield, ACTIONS 87), (sym_ellipsis, ACTIONS 89),
    (anon_sym___mlir_type, ACTIONS 91), (sym_integer, ACTIONS 93), (sym_float, ACTIONS 89),
    (anon_sym_await, ACTIONS 95), (sym_true, ACTIONS 93), (sym_false, ACTIONS 93),
    (sym_none, ACTIONS 93), (sym_comment, ACTIONS 3), (sym_line_continuation, ACTIONS 3),
    (sym__dedent, ACTIONS 129), (sym_string_start, ACTIONS 97)]"

definition parse_table_398 :: "(nat \<times> nat) list" where "parse_table_398 = [
    (sym__statement, STATE 925), (sym__simple_statements, STATE 925),
    (sym_import_statement, STATE 11814), (sym_future_import_statement, STATE 11814),
    (sym_import_from_statement, STATE 11814), (sym_print_statement, STATE 11814),
    (sym_assert_statement, STATE 11814), (sym_comptime_assert_statement, STATE 11814),
    (sym_expression_statement, STATE 11814), (sym_tuple_expression, STATE 12425),
    (sym_named_expression, STATE 7969), (sym__named_expression_lhs, STATE 12752),
    (sym_return_statement, STATE 11814), (sym_delete_statement, STATE 11814),
    (sym_raise_statement, STATE 11814), (sym_pass_statement, STATE 11814),
    (sym_break_statement, STATE 11814), (sym_continue_statement, STATE 11814),
    (sym_extension_definition, STATE 925), (sym_mlir_region, STATE 925),
    (sym_comptime_statement, STATE 925), (sym_if_statement, STATE 925),
    (sym_match_statement, STATE 925), (sym_for_statement, STATE 925),
    (sym_while_statement, STATE 925), (sym_try_statement, STATE 925),
    (sym_with_statement, STATE 925), (sym_function_definition, STATE 925),
    (sym_global_statement, STATE 11814), (sym_nonlocal_statement, STATE 11814),
    (sym_exec_statement, STATE 11814), (sym_type_alias_statement, STATE 11814),
    (sym_parameterized_alias_statement, STATE 11814), (sym_class_definition, STATE 925),
    (sym_trait_definition, STATE 925), (sym_decorated_definition, STATE 925),
    (sym_decorator, STATE 3670), (sym_block, STATE 6536), (sym_pattern, STATE 8086),
    (sym_tuple_pattern, STATE 8101), (sym_list_pattern, STATE 8101),
    (sym_list_splat_pattern, STATE 6819), (sym_as_pattern, STATE 7969),
    (sym_expression, STATE 9883), (sym_primary_expression, STATE 7326),
    (sym_comptime_expression, STATE 7017), (sym_transfer_expression, STATE 7017),
    (sym_not_operator, STATE 7969), (sym_boolean_operator, STATE 7969),
    (sym_binary_operator, STATE 7017), (sym_unary_operator, STATE 7017),
    (sym_comparison_operator, STATE 7969), (sym_lambda, STATE 7969),
    (sym_assignment, STATE 12425), (sym_augmented_assignment, STATE 12425),
    (sym_pattern_list, STATE 8578), (sym_yield, STATE 12425), (sym_attribute, STATE 6836),
    (sym_subscript, STATE 6838), (sym_call, STATE 6845), (sym_mlir_type, STATE 7017),
    (sym_list, STATE 7017), (sym_set, STATE 7017), (sym_tuple, STATE 7017),
    (sym_dictionary, STATE 7017), (sym_struct_literal, STATE 7017),
    (sym_list_comprehension, STATE 7017), (sym_dictionary_comprehension, STATE 7017),
    (sym_set_comprehension, STATE 7017), (sym_generator_expression, STATE 7017),
    (sym_parenthesized_expression, STATE 7017), (sym_conditional_expression, STATE 7969),
    (sym_concatenated_string, STATE 7017), (sym_string, STATE 6751), (sym_await, STATE 7017),
    (aux_sym_module_repeat1, STATE 925), (aux_sym_decorated_definition_repeat1, STATE 3670),
    (sym_identifier, ACTIONS 9), (anon_sym_import, ACTIONS 11), (anon_sym_from, ACTIONS 13),
    (anon_sym_LPAREN, ACTIONS 15), (anon_sym_STAR, ACTIONS 17), (anon_sym_print, ACTIONS 19),
    (anon_sym_comptime, ACTIONS 99), (anon_sym_assert, ACTIONS 23),
    (anon_sym___comptime_assert, ACTIONS 25), (anon_sym_return, ACTIONS 27),
    (anon_sym_del, ACTIONS 29), (anon_sym_raise, ACTIONS 31), (anon_sym_pass, ACTIONS 33),
    (anon_sym_break, ACTIONS 35), (anon_sym_continue, ACTIONS 37),
    (anon_sym___extension, ACTIONS 101), (anon_sym___mlir_region, ACTIONS 103),
    (anon_sym_if, ACTIONS 105), (anon_sym_match, ACTIONS 107), (anon_sym_async, ACTIONS 109),
    (anon_sym_for, ACTIONS 111), (anon_sym_while, ACTIONS 113), (anon_sym_try, ACTIONS 115),
    (anon_sym_with, ACTIONS 117), (anon_sym_def, ACTIONS 119), (anon_sym_fn, ACTIONS 119),
    (anon_sym_LBRACK, ACTIONS 59), (anon_sym_LBRACE, ACTIONS 61), (anon_sym_global, ACTIONS 63),
    (anon_sym_nonlocal, ACTIONS 65), (anon_sym_exec, ACTIONS 67), (anon_sym_type, ACTIONS 69),
    (anon_sym_class, ACTIONS 121), (anon_sym_struct, ACTIONS 121), (anon_sym_mut, ACTIONS 73),
    (anon_sym_out, ACTIONS 73), (anon_sym_trait, ACTIONS 123), (anon_sym_AT, ACTIONS 77),
    (anon_sym_DASH, ACTIONS 79), (anon_sym_PLUS, ACTIONS 79), (anon_sym_ref, ACTIONS 81),
    (anon_sym_var, ACTIONS 81), (anon_sym_not, ACTIONS 83), (anon_sym_TILDE, ACTIONS 79),
    (anon_sym_lambda, ACTIONS 85), (anon_sym_yield, ACTIONS 87), (sym_ellipsis, ACTIONS 89),
    (anon_sym___mlir_type, ACTIONS 91), (sym_integer, ACTIONS 93), (sym_float, ACTIONS 89),
    (anon_sym_await, ACTIONS 95), (sym_true, ACTIONS 93), (sym_false, ACTIONS 93),
    (sym_none, ACTIONS 93), (sym_comment, ACTIONS 3), (sym_line_continuation, ACTIONS 3),
    (sym__dedent, ACTIONS 129), (sym_string_start, ACTIONS 97)]"

definition parse_table_399 :: "(nat \<times> nat) list" where "parse_table_399 = [
    (sym__statement, STATE 925), (sym__simple_statements, STATE 925),
    (sym_import_statement, STATE 11814), (sym_future_import_statement, STATE 11814),
    (sym_import_from_statement, STATE 11814), (sym_print_statement, STATE 11814),
    (sym_assert_statement, STATE 11814), (sym_comptime_assert_statement, STATE 11814),
    (sym_expression_statement, STATE 11814), (sym_tuple_expression, STATE 12425),
    (sym_named_expression, STATE 7969), (sym__named_expression_lhs, STATE 12752),
    (sym_return_statement, STATE 11814), (sym_delete_statement, STATE 11814),
    (sym_raise_statement, STATE 11814), (sym_pass_statement, STATE 11814),
    (sym_break_statement, STATE 11814), (sym_continue_statement, STATE 11814),
    (sym_extension_definition, STATE 925), (sym_mlir_region, STATE 925),
    (sym_comptime_statement, STATE 925), (sym_if_statement, STATE 925),
    (sym_match_statement, STATE 925), (sym_for_statement, STATE 925),
    (sym_while_statement, STATE 925), (sym_try_statement, STATE 925),
    (sym_with_statement, STATE 925), (sym_function_definition, STATE 925),
    (sym_global_statement, STATE 11814), (sym_nonlocal_statement, STATE 11814),
    (sym_exec_statement, STATE 11814), (sym_type_alias_statement, STATE 11814),
    (sym_parameterized_alias_statement, STATE 11814), (sym_class_definition, STATE 925),
    (sym_trait_definition, STATE 925), (sym_decorated_definition, STATE 925),
    (sym_decorator, STATE 3670), (sym_block, STATE 6537), (sym_pattern, STATE 8086),
    (sym_tuple_pattern, STATE 8101), (sym_list_pattern, STATE 8101),
    (sym_list_splat_pattern, STATE 6819), (sym_as_pattern, STATE 7969),
    (sym_expression, STATE 9883), (sym_primary_expression, STATE 7326),
    (sym_comptime_expression, STATE 7017), (sym_transfer_expression, STATE 7017),
    (sym_not_operator, STATE 7969), (sym_boolean_operator, STATE 7969),
    (sym_binary_operator, STATE 7017), (sym_unary_operator, STATE 7017),
    (sym_comparison_operator, STATE 7969), (sym_lambda, STATE 7969),
    (sym_assignment, STATE 12425), (sym_augmented_assignment, STATE 12425),
    (sym_pattern_list, STATE 8578), (sym_yield, STATE 12425), (sym_attribute, STATE 6836),
    (sym_subscript, STATE 6838), (sym_call, STATE 6845), (sym_mlir_type, STATE 7017),
    (sym_list, STATE 7017), (sym_set, STATE 7017), (sym_tuple, STATE 7017),
    (sym_dictionary, STATE 7017), (sym_struct_literal, STATE 7017),
    (sym_list_comprehension, STATE 7017), (sym_dictionary_comprehension, STATE 7017),
    (sym_set_comprehension, STATE 7017), (sym_generator_expression, STATE 7017),
    (sym_parenthesized_expression, STATE 7017), (sym_conditional_expression, STATE 7969),
    (sym_concatenated_string, STATE 7017), (sym_string, STATE 6751), (sym_await, STATE 7017),
    (aux_sym_module_repeat1, STATE 925), (aux_sym_decorated_definition_repeat1, STATE 3670),
    (sym_identifier, ACTIONS 9), (anon_sym_import, ACTIONS 11), (anon_sym_from, ACTIONS 13),
    (anon_sym_LPAREN, ACTIONS 15), (anon_sym_STAR, ACTIONS 17), (anon_sym_print, ACTIONS 19),
    (anon_sym_comptime, ACTIONS 99), (anon_sym_assert, ACTIONS 23),
    (anon_sym___comptime_assert, ACTIONS 25), (anon_sym_return, ACTIONS 27),
    (anon_sym_del, ACTIONS 29), (anon_sym_raise, ACTIONS 31), (anon_sym_pass, ACTIONS 33),
    (anon_sym_break, ACTIONS 35), (anon_sym_continue, ACTIONS 37),
    (anon_sym___extension, ACTIONS 101), (anon_sym___mlir_region, ACTIONS 103),
    (anon_sym_if, ACTIONS 105), (anon_sym_match, ACTIONS 107), (anon_sym_async, ACTIONS 109),
    (anon_sym_for, ACTIONS 111), (anon_sym_while, ACTIONS 113), (anon_sym_try, ACTIONS 115),
    (anon_sym_with, ACTIONS 117), (anon_sym_def, ACTIONS 119), (anon_sym_fn, ACTIONS 119),
    (anon_sym_LBRACK, ACTIONS 59), (anon_sym_LBRACE, ACTIONS 61), (anon_sym_global, ACTIONS 63),
    (anon_sym_nonlocal, ACTIONS 65), (anon_sym_exec, ACTIONS 67), (anon_sym_type, ACTIONS 69),
    (anon_sym_class, ACTIONS 121), (anon_sym_struct, ACTIONS 121), (anon_sym_mut, ACTIONS 73),
    (anon_sym_out, ACTIONS 73), (anon_sym_trait, ACTIONS 123), (anon_sym_AT, ACTIONS 77),
    (anon_sym_DASH, ACTIONS 79), (anon_sym_PLUS, ACTIONS 79), (anon_sym_ref, ACTIONS 81),
    (anon_sym_var, ACTIONS 81), (anon_sym_not, ACTIONS 83), (anon_sym_TILDE, ACTIONS 79),
    (anon_sym_lambda, ACTIONS 85), (anon_sym_yield, ACTIONS 87), (sym_ellipsis, ACTIONS 89),
    (anon_sym___mlir_type, ACTIONS 91), (sym_integer, ACTIONS 93), (sym_float, ACTIONS 89),
    (anon_sym_await, ACTIONS 95), (sym_true, ACTIONS 93), (sym_false, ACTIONS 93),
    (sym_none, ACTIONS 93), (sym_comment, ACTIONS 3), (sym_line_continuation, ACTIONS 3),
    (sym__dedent, ACTIONS 129), (sym_string_start, ACTIONS 97)]"

definition parse_table_400 :: "(nat \<times> nat) list" where "parse_table_400 = [
    (sym__statement, STATE 925), (sym__simple_statements, STATE 925),
    (sym_import_statement, STATE 11814), (sym_future_import_statement, STATE 11814),
    (sym_import_from_statement, STATE 11814), (sym_print_statement, STATE 11814),
    (sym_assert_statement, STATE 11814), (sym_comptime_assert_statement, STATE 11814),
    (sym_expression_statement, STATE 11814), (sym_tuple_expression, STATE 12425),
    (sym_named_expression, STATE 7969), (sym__named_expression_lhs, STATE 12752),
    (sym_return_statement, STATE 11814), (sym_delete_statement, STATE 11814),
    (sym_raise_statement, STATE 11814), (sym_pass_statement, STATE 11814),
    (sym_break_statement, STATE 11814), (sym_continue_statement, STATE 11814),
    (sym_extension_definition, STATE 925), (sym_mlir_region, STATE 925),
    (sym_comptime_statement, STATE 925), (sym_if_statement, STATE 925),
    (sym_match_statement, STATE 925), (sym_for_statement, STATE 925),
    (sym_while_statement, STATE 925), (sym_try_statement, STATE 925),
    (sym_with_statement, STATE 925), (sym_function_definition, STATE 925),
    (sym_global_statement, STATE 11814), (sym_nonlocal_statement, STATE 11814),
    (sym_exec_statement, STATE 11814), (sym_type_alias_statement, STATE 11814),
    (sym_parameterized_alias_statement, STATE 11814), (sym_class_definition, STATE 925),
    (sym_trait_definition, STATE 925), (sym_decorated_definition, STATE 925),
    (sym_decorator, STATE 3670), (sym_block, STATE 6545), (sym_pattern, STATE 8086),
    (sym_tuple_pattern, STATE 8101), (sym_list_pattern, STATE 8101),
    (sym_list_splat_pattern, STATE 6819), (sym_as_pattern, STATE 7969),
    (sym_expression, STATE 9883), (sym_primary_expression, STATE 7326),
    (sym_comptime_expression, STATE 7017), (sym_transfer_expression, STATE 7017),
    (sym_not_operator, STATE 7969), (sym_boolean_operator, STATE 7969),
    (sym_binary_operator, STATE 7017), (sym_unary_operator, STATE 7017),
    (sym_comparison_operator, STATE 7969), (sym_lambda, STATE 7969),
    (sym_assignment, STATE 12425), (sym_augmented_assignment, STATE 12425),
    (sym_pattern_list, STATE 8578), (sym_yield, STATE 12425), (sym_attribute, STATE 6836),
    (sym_subscript, STATE 6838), (sym_call, STATE 6845), (sym_mlir_type, STATE 7017),
    (sym_list, STATE 7017), (sym_set, STATE 7017), (sym_tuple, STATE 7017),
    (sym_dictionary, STATE 7017), (sym_struct_literal, STATE 7017),
    (sym_list_comprehension, STATE 7017), (sym_dictionary_comprehension, STATE 7017),
    (sym_set_comprehension, STATE 7017), (sym_generator_expression, STATE 7017),
    (sym_parenthesized_expression, STATE 7017), (sym_conditional_expression, STATE 7969),
    (sym_concatenated_string, STATE 7017), (sym_string, STATE 6751), (sym_await, STATE 7017),
    (aux_sym_module_repeat1, STATE 925), (aux_sym_decorated_definition_repeat1, STATE 3670),
    (sym_identifier, ACTIONS 9), (anon_sym_import, ACTIONS 11), (anon_sym_from, ACTIONS 13),
    (anon_sym_LPAREN, ACTIONS 15), (anon_sym_STAR, ACTIONS 17), (anon_sym_print, ACTIONS 19),
    (anon_sym_comptime, ACTIONS 99), (anon_sym_assert, ACTIONS 23),
    (anon_sym___comptime_assert, ACTIONS 25), (anon_sym_return, ACTIONS 27),
    (anon_sym_del, ACTIONS 29), (anon_sym_raise, ACTIONS 31), (anon_sym_pass, ACTIONS 33),
    (anon_sym_break, ACTIONS 35), (anon_sym_continue, ACTIONS 37),
    (anon_sym___extension, ACTIONS 101), (anon_sym___mlir_region, ACTIONS 103),
    (anon_sym_if, ACTIONS 105), (anon_sym_match, ACTIONS 107), (anon_sym_async, ACTIONS 109),
    (anon_sym_for, ACTIONS 111), (anon_sym_while, ACTIONS 113), (anon_sym_try, ACTIONS 115),
    (anon_sym_with, ACTIONS 117), (anon_sym_def, ACTIONS 119), (anon_sym_fn, ACTIONS 119),
    (anon_sym_LBRACK, ACTIONS 59), (anon_sym_LBRACE, ACTIONS 61), (anon_sym_global, ACTIONS 63),
    (anon_sym_nonlocal, ACTIONS 65), (anon_sym_exec, ACTIONS 67), (anon_sym_type, ACTIONS 69),
    (anon_sym_class, ACTIONS 121), (anon_sym_struct, ACTIONS 121), (anon_sym_mut, ACTIONS 73),
    (anon_sym_out, ACTIONS 73), (anon_sym_trait, ACTIONS 123), (anon_sym_AT, ACTIONS 77),
    (anon_sym_DASH, ACTIONS 79), (anon_sym_PLUS, ACTIONS 79), (anon_sym_ref, ACTIONS 81),
    (anon_sym_var, ACTIONS 81), (anon_sym_not, ACTIONS 83), (anon_sym_TILDE, ACTIONS 79),
    (anon_sym_lambda, ACTIONS 85), (anon_sym_yield, ACTIONS 87), (sym_ellipsis, ACTIONS 89),
    (anon_sym___mlir_type, ACTIONS 91), (sym_integer, ACTIONS 93), (sym_float, ACTIONS 89),
    (anon_sym_await, ACTIONS 95), (sym_true, ACTIONS 93), (sym_false, ACTIONS 93),
    (sym_none, ACTIONS 93), (sym_comment, ACTIONS 3), (sym_line_continuation, ACTIONS 3),
    (sym__dedent, ACTIONS 129), (sym_string_start, ACTIONS 97)]"

definition parse_table_401 :: "(nat \<times> nat) list" where "parse_table_401 = [
    (sym__statement, STATE 925), (sym__simple_statements, STATE 925),
    (sym_import_statement, STATE 11814), (sym_future_import_statement, STATE 11814),
    (sym_import_from_statement, STATE 11814), (sym_print_statement, STATE 11814),
    (sym_assert_statement, STATE 11814), (sym_comptime_assert_statement, STATE 11814),
    (sym_expression_statement, STATE 11814), (sym_tuple_expression, STATE 12425),
    (sym_named_expression, STATE 7969), (sym__named_expression_lhs, STATE 12752),
    (sym_return_statement, STATE 11814), (sym_delete_statement, STATE 11814),
    (sym_raise_statement, STATE 11814), (sym_pass_statement, STATE 11814),
    (sym_break_statement, STATE 11814), (sym_continue_statement, STATE 11814),
    (sym_extension_definition, STATE 925), (sym_mlir_region, STATE 925),
    (sym_comptime_statement, STATE 925), (sym_if_statement, STATE 925),
    (sym_match_statement, STATE 925), (sym_for_statement, STATE 925),
    (sym_while_statement, STATE 925), (sym_try_statement, STATE 925),
    (sym_with_statement, STATE 925), (sym_function_definition, STATE 925),
    (sym_global_statement, STATE 11814), (sym_nonlocal_statement, STATE 11814),
    (sym_exec_statement, STATE 11814), (sym_type_alias_statement, STATE 11814),
    (sym_parameterized_alias_statement, STATE 11814), (sym_class_definition, STATE 925),
    (sym_trait_definition, STATE 925), (sym_decorated_definition, STATE 925),
    (sym_decorator, STATE 3670), (sym_block, STATE 6548), (sym_pattern, STATE 8086),
    (sym_tuple_pattern, STATE 8101), (sym_list_pattern, STATE 8101),
    (sym_list_splat_pattern, STATE 6819), (sym_as_pattern, STATE 7969),
    (sym_expression, STATE 9883), (sym_primary_expression, STATE 7326),
    (sym_comptime_expression, STATE 7017), (sym_transfer_expression, STATE 7017),
    (sym_not_operator, STATE 7969), (sym_boolean_operator, STATE 7969),
    (sym_binary_operator, STATE 7017), (sym_unary_operator, STATE 7017),
    (sym_comparison_operator, STATE 7969), (sym_lambda, STATE 7969),
    (sym_assignment, STATE 12425), (sym_augmented_assignment, STATE 12425),
    (sym_pattern_list, STATE 8578), (sym_yield, STATE 12425), (sym_attribute, STATE 6836),
    (sym_subscript, STATE 6838), (sym_call, STATE 6845), (sym_mlir_type, STATE 7017),
    (sym_list, STATE 7017), (sym_set, STATE 7017), (sym_tuple, STATE 7017),
    (sym_dictionary, STATE 7017), (sym_struct_literal, STATE 7017),
    (sym_list_comprehension, STATE 7017), (sym_dictionary_comprehension, STATE 7017),
    (sym_set_comprehension, STATE 7017), (sym_generator_expression, STATE 7017),
    (sym_parenthesized_expression, STATE 7017), (sym_conditional_expression, STATE 7969),
    (sym_concatenated_string, STATE 7017), (sym_string, STATE 6751), (sym_await, STATE 7017),
    (aux_sym_module_repeat1, STATE 925), (aux_sym_decorated_definition_repeat1, STATE 3670),
    (sym_identifier, ACTIONS 9), (anon_sym_import, ACTIONS 11), (anon_sym_from, ACTIONS 13),
    (anon_sym_LPAREN, ACTIONS 15), (anon_sym_STAR, ACTIONS 17), (anon_sym_print, ACTIONS 19),
    (anon_sym_comptime, ACTIONS 99), (anon_sym_assert, ACTIONS 23),
    (anon_sym___comptime_assert, ACTIONS 25), (anon_sym_return, ACTIONS 27),
    (anon_sym_del, ACTIONS 29), (anon_sym_raise, ACTIONS 31), (anon_sym_pass, ACTIONS 33),
    (anon_sym_break, ACTIONS 35), (anon_sym_continue, ACTIONS 37),
    (anon_sym___extension, ACTIONS 101), (anon_sym___mlir_region, ACTIONS 103),
    (anon_sym_if, ACTIONS 105), (anon_sym_match, ACTIONS 107), (anon_sym_async, ACTIONS 109),
    (anon_sym_for, ACTIONS 111), (anon_sym_while, ACTIONS 113), (anon_sym_try, ACTIONS 115),
    (anon_sym_with, ACTIONS 117), (anon_sym_def, ACTIONS 119), (anon_sym_fn, ACTIONS 119),
    (anon_sym_LBRACK, ACTIONS 59), (anon_sym_LBRACE, ACTIONS 61), (anon_sym_global, ACTIONS 63),
    (anon_sym_nonlocal, ACTIONS 65), (anon_sym_exec, ACTIONS 67), (anon_sym_type, ACTIONS 69),
    (anon_sym_class, ACTIONS 121), (anon_sym_struct, ACTIONS 121), (anon_sym_mut, ACTIONS 73),
    (anon_sym_out, ACTIONS 73), (anon_sym_trait, ACTIONS 123), (anon_sym_AT, ACTIONS 77),
    (anon_sym_DASH, ACTIONS 79), (anon_sym_PLUS, ACTIONS 79), (anon_sym_ref, ACTIONS 81),
    (anon_sym_var, ACTIONS 81), (anon_sym_not, ACTIONS 83), (anon_sym_TILDE, ACTIONS 79),
    (anon_sym_lambda, ACTIONS 85), (anon_sym_yield, ACTIONS 87), (sym_ellipsis, ACTIONS 89),
    (anon_sym___mlir_type, ACTIONS 91), (sym_integer, ACTIONS 93), (sym_float, ACTIONS 89),
    (anon_sym_await, ACTIONS 95), (sym_true, ACTIONS 93), (sym_false, ACTIONS 93),
    (sym_none, ACTIONS 93), (sym_comment, ACTIONS 3), (sym_line_continuation, ACTIONS 3),
    (sym__dedent, ACTIONS 129), (sym_string_start, ACTIONS 97)]"

definition parse_table_402 :: "(nat \<times> nat) list" where "parse_table_402 = [
    (sym__statement, STATE 925), (sym__simple_statements, STATE 925),
    (sym_import_statement, STATE 11814), (sym_future_import_statement, STATE 11814),
    (sym_import_from_statement, STATE 11814), (sym_print_statement, STATE 11814),
    (sym_assert_statement, STATE 11814), (sym_comptime_assert_statement, STATE 11814),
    (sym_expression_statement, STATE 11814), (sym_tuple_expression, STATE 12425),
    (sym_named_expression, STATE 7969), (sym__named_expression_lhs, STATE 12752),
    (sym_return_statement, STATE 11814), (sym_delete_statement, STATE 11814),
    (sym_raise_statement, STATE 11814), (sym_pass_statement, STATE 11814),
    (sym_break_statement, STATE 11814), (sym_continue_statement, STATE 11814),
    (sym_extension_definition, STATE 925), (sym_mlir_region, STATE 925),
    (sym_comptime_statement, STATE 925), (sym_if_statement, STATE 925),
    (sym_match_statement, STATE 925), (sym_for_statement, STATE 925),
    (sym_while_statement, STATE 925), (sym_try_statement, STATE 925),
    (sym_with_statement, STATE 925), (sym_function_definition, STATE 925),
    (sym_global_statement, STATE 11814), (sym_nonlocal_statement, STATE 11814),
    (sym_exec_statement, STATE 11814), (sym_type_alias_statement, STATE 11814),
    (sym_parameterized_alias_statement, STATE 11814), (sym_class_definition, STATE 925),
    (sym_trait_definition, STATE 925), (sym_decorated_definition, STATE 925),
    (sym_decorator, STATE 3670), (sym_block, STATE 6553), (sym_pattern, STATE 8086),
    (sym_tuple_pattern, STATE 8101), (sym_list_pattern, STATE 8101),
    (sym_list_splat_pattern, STATE 6819), (sym_as_pattern, STATE 7969),
    (sym_expression, STATE 9883), (sym_primary_expression, STATE 7326),
    (sym_comptime_expression, STATE 7017), (sym_transfer_expression, STATE 7017),
    (sym_not_operator, STATE 7969), (sym_boolean_operator, STATE 7969),
    (sym_binary_operator, STATE 7017), (sym_unary_operator, STATE 7017),
    (sym_comparison_operator, STATE 7969), (sym_lambda, STATE 7969),
    (sym_assignment, STATE 12425), (sym_augmented_assignment, STATE 12425),
    (sym_pattern_list, STATE 8578), (sym_yield, STATE 12425), (sym_attribute, STATE 6836),
    (sym_subscript, STATE 6838), (sym_call, STATE 6845), (sym_mlir_type, STATE 7017),
    (sym_list, STATE 7017), (sym_set, STATE 7017), (sym_tuple, STATE 7017),
    (sym_dictionary, STATE 7017), (sym_struct_literal, STATE 7017),
    (sym_list_comprehension, STATE 7017), (sym_dictionary_comprehension, STATE 7017),
    (sym_set_comprehension, STATE 7017), (sym_generator_expression, STATE 7017),
    (sym_parenthesized_expression, STATE 7017), (sym_conditional_expression, STATE 7969),
    (sym_concatenated_string, STATE 7017), (sym_string, STATE 6751), (sym_await, STATE 7017),
    (aux_sym_module_repeat1, STATE 925), (aux_sym_decorated_definition_repeat1, STATE 3670),
    (sym_identifier, ACTIONS 9), (anon_sym_import, ACTIONS 11), (anon_sym_from, ACTIONS 13),
    (anon_sym_LPAREN, ACTIONS 15), (anon_sym_STAR, ACTIONS 17), (anon_sym_print, ACTIONS 19),
    (anon_sym_comptime, ACTIONS 99), (anon_sym_assert, ACTIONS 23),
    (anon_sym___comptime_assert, ACTIONS 25), (anon_sym_return, ACTIONS 27),
    (anon_sym_del, ACTIONS 29), (anon_sym_raise, ACTIONS 31), (anon_sym_pass, ACTIONS 33),
    (anon_sym_break, ACTIONS 35), (anon_sym_continue, ACTIONS 37),
    (anon_sym___extension, ACTIONS 101), (anon_sym___mlir_region, ACTIONS 103),
    (anon_sym_if, ACTIONS 105), (anon_sym_match, ACTIONS 107), (anon_sym_async, ACTIONS 109),
    (anon_sym_for, ACTIONS 111), (anon_sym_while, ACTIONS 113), (anon_sym_try, ACTIONS 115),
    (anon_sym_with, ACTIONS 117), (anon_sym_def, ACTIONS 119), (anon_sym_fn, ACTIONS 119),
    (anon_sym_LBRACK, ACTIONS 59), (anon_sym_LBRACE, ACTIONS 61), (anon_sym_global, ACTIONS 63),
    (anon_sym_nonlocal, ACTIONS 65), (anon_sym_exec, ACTIONS 67), (anon_sym_type, ACTIONS 69),
    (anon_sym_class, ACTIONS 121), (anon_sym_struct, ACTIONS 121), (anon_sym_mut, ACTIONS 73),
    (anon_sym_out, ACTIONS 73), (anon_sym_trait, ACTIONS 123), (anon_sym_AT, ACTIONS 77),
    (anon_sym_DASH, ACTIONS 79), (anon_sym_PLUS, ACTIONS 79), (anon_sym_ref, ACTIONS 81),
    (anon_sym_var, ACTIONS 81), (anon_sym_not, ACTIONS 83), (anon_sym_TILDE, ACTIONS 79),
    (anon_sym_lambda, ACTIONS 85), (anon_sym_yield, ACTIONS 87), (sym_ellipsis, ACTIONS 89),
    (anon_sym___mlir_type, ACTIONS 91), (sym_integer, ACTIONS 93), (sym_float, ACTIONS 89),
    (anon_sym_await, ACTIONS 95), (sym_true, ACTIONS 93), (sym_false, ACTIONS 93),
    (sym_none, ACTIONS 93), (sym_comment, ACTIONS 3), (sym_line_continuation, ACTIONS 3),
    (sym__dedent, ACTIONS 129), (sym_string_start, ACTIONS 97)]"

definition parse_table_403 :: "(nat \<times> nat) list" where "parse_table_403 = [
    (sym__statement, STATE 925), (sym__simple_statements, STATE 925),
    (sym_import_statement, STATE 11814), (sym_future_import_statement, STATE 11814),
    (sym_import_from_statement, STATE 11814), (sym_print_statement, STATE 11814),
    (sym_assert_statement, STATE 11814), (sym_comptime_assert_statement, STATE 11814),
    (sym_expression_statement, STATE 11814), (sym_tuple_expression, STATE 12425),
    (sym_named_expression, STATE 7969), (sym__named_expression_lhs, STATE 12752),
    (sym_return_statement, STATE 11814), (sym_delete_statement, STATE 11814),
    (sym_raise_statement, STATE 11814), (sym_pass_statement, STATE 11814),
    (sym_break_statement, STATE 11814), (sym_continue_statement, STATE 11814),
    (sym_extension_definition, STATE 925), (sym_mlir_region, STATE 925),
    (sym_comptime_statement, STATE 925), (sym_if_statement, STATE 925),
    (sym_match_statement, STATE 925), (sym_for_statement, STATE 925),
    (sym_while_statement, STATE 925), (sym_try_statement, STATE 925),
    (sym_with_statement, STATE 925), (sym_function_definition, STATE 925),
    (sym_global_statement, STATE 11814), (sym_nonlocal_statement, STATE 11814),
    (sym_exec_statement, STATE 11814), (sym_type_alias_statement, STATE 11814),
    (sym_parameterized_alias_statement, STATE 11814), (sym_class_definition, STATE 925),
    (sym_trait_definition, STATE 925), (sym_decorated_definition, STATE 925),
    (sym_decorator, STATE 3670), (sym_block, STATE 6559), (sym_pattern, STATE 8086),
    (sym_tuple_pattern, STATE 8101), (sym_list_pattern, STATE 8101),
    (sym_list_splat_pattern, STATE 6819), (sym_as_pattern, STATE 7969),
    (sym_expression, STATE 9883), (sym_primary_expression, STATE 7326),
    (sym_comptime_expression, STATE 7017), (sym_transfer_expression, STATE 7017),
    (sym_not_operator, STATE 7969), (sym_boolean_operator, STATE 7969),
    (sym_binary_operator, STATE 7017), (sym_unary_operator, STATE 7017),
    (sym_comparison_operator, STATE 7969), (sym_lambda, STATE 7969),
    (sym_assignment, STATE 12425), (sym_augmented_assignment, STATE 12425),
    (sym_pattern_list, STATE 8578), (sym_yield, STATE 12425), (sym_attribute, STATE 6836),
    (sym_subscript, STATE 6838), (sym_call, STATE 6845), (sym_mlir_type, STATE 7017),
    (sym_list, STATE 7017), (sym_set, STATE 7017), (sym_tuple, STATE 7017),
    (sym_dictionary, STATE 7017), (sym_struct_literal, STATE 7017),
    (sym_list_comprehension, STATE 7017), (sym_dictionary_comprehension, STATE 7017),
    (sym_set_comprehension, STATE 7017), (sym_generator_expression, STATE 7017),
    (sym_parenthesized_expression, STATE 7017), (sym_conditional_expression, STATE 7969),
    (sym_concatenated_string, STATE 7017), (sym_string, STATE 6751), (sym_await, STATE 7017),
    (aux_sym_module_repeat1, STATE 925), (aux_sym_decorated_definition_repeat1, STATE 3670),
    (sym_identifier, ACTIONS 9), (anon_sym_import, ACTIONS 11), (anon_sym_from, ACTIONS 13),
    (anon_sym_LPAREN, ACTIONS 15), (anon_sym_STAR, ACTIONS 17), (anon_sym_print, ACTIONS 19),
    (anon_sym_comptime, ACTIONS 99), (anon_sym_assert, ACTIONS 23),
    (anon_sym___comptime_assert, ACTIONS 25), (anon_sym_return, ACTIONS 27),
    (anon_sym_del, ACTIONS 29), (anon_sym_raise, ACTIONS 31), (anon_sym_pass, ACTIONS 33),
    (anon_sym_break, ACTIONS 35), (anon_sym_continue, ACTIONS 37),
    (anon_sym___extension, ACTIONS 101), (anon_sym___mlir_region, ACTIONS 103),
    (anon_sym_if, ACTIONS 105), (anon_sym_match, ACTIONS 107), (anon_sym_async, ACTIONS 109),
    (anon_sym_for, ACTIONS 111), (anon_sym_while, ACTIONS 113), (anon_sym_try, ACTIONS 115),
    (anon_sym_with, ACTIONS 117), (anon_sym_def, ACTIONS 119), (anon_sym_fn, ACTIONS 119),
    (anon_sym_LBRACK, ACTIONS 59), (anon_sym_LBRACE, ACTIONS 61), (anon_sym_global, ACTIONS 63),
    (anon_sym_nonlocal, ACTIONS 65), (anon_sym_exec, ACTIONS 67), (anon_sym_type, ACTIONS 69),
    (anon_sym_class, ACTIONS 121), (anon_sym_struct, ACTIONS 121), (anon_sym_mut, ACTIONS 73),
    (anon_sym_out, ACTIONS 73), (anon_sym_trait, ACTIONS 123), (anon_sym_AT, ACTIONS 77),
    (anon_sym_DASH, ACTIONS 79), (anon_sym_PLUS, ACTIONS 79), (anon_sym_ref, ACTIONS 81),
    (anon_sym_var, ACTIONS 81), (anon_sym_not, ACTIONS 83), (anon_sym_TILDE, ACTIONS 79),
    (anon_sym_lambda, ACTIONS 85), (anon_sym_yield, ACTIONS 87), (sym_ellipsis, ACTIONS 89),
    (anon_sym___mlir_type, ACTIONS 91), (sym_integer, ACTIONS 93), (sym_float, ACTIONS 89),
    (anon_sym_await, ACTIONS 95), (sym_true, ACTIONS 93), (sym_false, ACTIONS 93),
    (sym_none, ACTIONS 93), (sym_comment, ACTIONS 3), (sym_line_continuation, ACTIONS 3),
    (sym__dedent, ACTIONS 129), (sym_string_start, ACTIONS 97)]"

definition parse_table_404 :: "(nat \<times> nat) list" where "parse_table_404 = [
    (sym__statement, STATE 925), (sym__simple_statements, STATE 925),
    (sym_import_statement, STATE 11814), (sym_future_import_statement, STATE 11814),
    (sym_import_from_statement, STATE 11814), (sym_print_statement, STATE 11814),
    (sym_assert_statement, STATE 11814), (sym_comptime_assert_statement, STATE 11814),
    (sym_expression_statement, STATE 11814), (sym_tuple_expression, STATE 12425),
    (sym_named_expression, STATE 7969), (sym__named_expression_lhs, STATE 12752),
    (sym_return_statement, STATE 11814), (sym_delete_statement, STATE 11814),
    (sym_raise_statement, STATE 11814), (sym_pass_statement, STATE 11814),
    (sym_break_statement, STATE 11814), (sym_continue_statement, STATE 11814),
    (sym_extension_definition, STATE 925), (sym_mlir_region, STATE 925),
    (sym_comptime_statement, STATE 925), (sym_if_statement, STATE 925),
    (sym_match_statement, STATE 925), (sym_for_statement, STATE 925),
    (sym_while_statement, STATE 925), (sym_try_statement, STATE 925),
    (sym_with_statement, STATE 925), (sym_function_definition, STATE 925),
    (sym_global_statement, STATE 11814), (sym_nonlocal_statement, STATE 11814),
    (sym_exec_statement, STATE 11814), (sym_type_alias_statement, STATE 11814),
    (sym_parameterized_alias_statement, STATE 11814), (sym_class_definition, STATE 925),
    (sym_trait_definition, STATE 925), (sym_decorated_definition, STATE 925),
    (sym_decorator, STATE 3670), (sym_block, STATE 6573), (sym_pattern, STATE 8086),
    (sym_tuple_pattern, STATE 8101), (sym_list_pattern, STATE 8101),
    (sym_list_splat_pattern, STATE 6819), (sym_as_pattern, STATE 7969),
    (sym_expression, STATE 9883), (sym_primary_expression, STATE 7326),
    (sym_comptime_expression, STATE 7017), (sym_transfer_expression, STATE 7017),
    (sym_not_operator, STATE 7969), (sym_boolean_operator, STATE 7969),
    (sym_binary_operator, STATE 7017), (sym_unary_operator, STATE 7017),
    (sym_comparison_operator, STATE 7969), (sym_lambda, STATE 7969),
    (sym_assignment, STATE 12425), (sym_augmented_assignment, STATE 12425),
    (sym_pattern_list, STATE 8578), (sym_yield, STATE 12425), (sym_attribute, STATE 6836),
    (sym_subscript, STATE 6838), (sym_call, STATE 6845), (sym_mlir_type, STATE 7017),
    (sym_list, STATE 7017), (sym_set, STATE 7017), (sym_tuple, STATE 7017),
    (sym_dictionary, STATE 7017), (sym_struct_literal, STATE 7017),
    (sym_list_comprehension, STATE 7017), (sym_dictionary_comprehension, STATE 7017),
    (sym_set_comprehension, STATE 7017), (sym_generator_expression, STATE 7017),
    (sym_parenthesized_expression, STATE 7017), (sym_conditional_expression, STATE 7969),
    (sym_concatenated_string, STATE 7017), (sym_string, STATE 6751), (sym_await, STATE 7017),
    (aux_sym_module_repeat1, STATE 925), (aux_sym_decorated_definition_repeat1, STATE 3670),
    (sym_identifier, ACTIONS 9), (anon_sym_import, ACTIONS 11), (anon_sym_from, ACTIONS 13),
    (anon_sym_LPAREN, ACTIONS 15), (anon_sym_STAR, ACTIONS 17), (anon_sym_print, ACTIONS 19),
    (anon_sym_comptime, ACTIONS 99), (anon_sym_assert, ACTIONS 23),
    (anon_sym___comptime_assert, ACTIONS 25), (anon_sym_return, ACTIONS 27),
    (anon_sym_del, ACTIONS 29), (anon_sym_raise, ACTIONS 31), (anon_sym_pass, ACTIONS 33),
    (anon_sym_break, ACTIONS 35), (anon_sym_continue, ACTIONS 37),
    (anon_sym___extension, ACTIONS 101), (anon_sym___mlir_region, ACTIONS 103),
    (anon_sym_if, ACTIONS 105), (anon_sym_match, ACTIONS 107), (anon_sym_async, ACTIONS 109),
    (anon_sym_for, ACTIONS 111), (anon_sym_while, ACTIONS 113), (anon_sym_try, ACTIONS 115),
    (anon_sym_with, ACTIONS 117), (anon_sym_def, ACTIONS 119), (anon_sym_fn, ACTIONS 119),
    (anon_sym_LBRACK, ACTIONS 59), (anon_sym_LBRACE, ACTIONS 61), (anon_sym_global, ACTIONS 63),
    (anon_sym_nonlocal, ACTIONS 65), (anon_sym_exec, ACTIONS 67), (anon_sym_type, ACTIONS 69),
    (anon_sym_class, ACTIONS 121), (anon_sym_struct, ACTIONS 121), (anon_sym_mut, ACTIONS 73),
    (anon_sym_out, ACTIONS 73), (anon_sym_trait, ACTIONS 123), (anon_sym_AT, ACTIONS 77),
    (anon_sym_DASH, ACTIONS 79), (anon_sym_PLUS, ACTIONS 79), (anon_sym_ref, ACTIONS 81),
    (anon_sym_var, ACTIONS 81), (anon_sym_not, ACTIONS 83), (anon_sym_TILDE, ACTIONS 79),
    (anon_sym_lambda, ACTIONS 85), (anon_sym_yield, ACTIONS 87), (sym_ellipsis, ACTIONS 89),
    (anon_sym___mlir_type, ACTIONS 91), (sym_integer, ACTIONS 93), (sym_float, ACTIONS 89),
    (anon_sym_await, ACTIONS 95), (sym_true, ACTIONS 93), (sym_false, ACTIONS 93),
    (sym_none, ACTIONS 93), (sym_comment, ACTIONS 3), (sym_line_continuation, ACTIONS 3),
    (sym__dedent, ACTIONS 129), (sym_string_start, ACTIONS 97)]"

definition parse_table_405 :: "(nat \<times> nat) list" where "parse_table_405 = [
    (sym__statement, STATE 925), (sym__simple_statements, STATE 925),
    (sym_import_statement, STATE 11814), (sym_future_import_statement, STATE 11814),
    (sym_import_from_statement, STATE 11814), (sym_print_statement, STATE 11814),
    (sym_assert_statement, STATE 11814), (sym_comptime_assert_statement, STATE 11814),
    (sym_expression_statement, STATE 11814), (sym_tuple_expression, STATE 12425),
    (sym_named_expression, STATE 7969), (sym__named_expression_lhs, STATE 12752),
    (sym_return_statement, STATE 11814), (sym_delete_statement, STATE 11814),
    (sym_raise_statement, STATE 11814), (sym_pass_statement, STATE 11814),
    (sym_break_statement, STATE 11814), (sym_continue_statement, STATE 11814),
    (sym_extension_definition, STATE 925), (sym_mlir_region, STATE 925),
    (sym_comptime_statement, STATE 925), (sym_if_statement, STATE 925),
    (sym_match_statement, STATE 925), (sym_for_statement, STATE 925),
    (sym_while_statement, STATE 925), (sym_try_statement, STATE 925),
    (sym_with_statement, STATE 925), (sym_function_definition, STATE 925),
    (sym_global_statement, STATE 11814), (sym_nonlocal_statement, STATE 11814),
    (sym_exec_statement, STATE 11814), (sym_type_alias_statement, STATE 11814),
    (sym_parameterized_alias_statement, STATE 11814), (sym_class_definition, STATE 925),
    (sym_trait_definition, STATE 925), (sym_decorated_definition, STATE 925),
    (sym_decorator, STATE 3670), (sym_block, STATE 6578), (sym_pattern, STATE 8086),
    (sym_tuple_pattern, STATE 8101), (sym_list_pattern, STATE 8101),
    (sym_list_splat_pattern, STATE 6819), (sym_as_pattern, STATE 7969),
    (sym_expression, STATE 9883), (sym_primary_expression, STATE 7326),
    (sym_comptime_expression, STATE 7017), (sym_transfer_expression, STATE 7017),
    (sym_not_operator, STATE 7969), (sym_boolean_operator, STATE 7969),
    (sym_binary_operator, STATE 7017), (sym_unary_operator, STATE 7017),
    (sym_comparison_operator, STATE 7969), (sym_lambda, STATE 7969),
    (sym_assignment, STATE 12425), (sym_augmented_assignment, STATE 12425),
    (sym_pattern_list, STATE 8578), (sym_yield, STATE 12425), (sym_attribute, STATE 6836),
    (sym_subscript, STATE 6838), (sym_call, STATE 6845), (sym_mlir_type, STATE 7017),
    (sym_list, STATE 7017), (sym_set, STATE 7017), (sym_tuple, STATE 7017),
    (sym_dictionary, STATE 7017), (sym_struct_literal, STATE 7017),
    (sym_list_comprehension, STATE 7017), (sym_dictionary_comprehension, STATE 7017),
    (sym_set_comprehension, STATE 7017), (sym_generator_expression, STATE 7017),
    (sym_parenthesized_expression, STATE 7017), (sym_conditional_expression, STATE 7969),
    (sym_concatenated_string, STATE 7017), (sym_string, STATE 6751), (sym_await, STATE 7017),
    (aux_sym_module_repeat1, STATE 925), (aux_sym_decorated_definition_repeat1, STATE 3670),
    (sym_identifier, ACTIONS 9), (anon_sym_import, ACTIONS 11), (anon_sym_from, ACTIONS 13),
    (anon_sym_LPAREN, ACTIONS 15), (anon_sym_STAR, ACTIONS 17), (anon_sym_print, ACTIONS 19),
    (anon_sym_comptime, ACTIONS 99), (anon_sym_assert, ACTIONS 23),
    (anon_sym___comptime_assert, ACTIONS 25), (anon_sym_return, ACTIONS 27),
    (anon_sym_del, ACTIONS 29), (anon_sym_raise, ACTIONS 31), (anon_sym_pass, ACTIONS 33),
    (anon_sym_break, ACTIONS 35), (anon_sym_continue, ACTIONS 37),
    (anon_sym___extension, ACTIONS 101), (anon_sym___mlir_region, ACTIONS 103),
    (anon_sym_if, ACTIONS 105), (anon_sym_match, ACTIONS 107), (anon_sym_async, ACTIONS 109),
    (anon_sym_for, ACTIONS 111), (anon_sym_while, ACTIONS 113), (anon_sym_try, ACTIONS 115),
    (anon_sym_with, ACTIONS 117), (anon_sym_def, ACTIONS 119), (anon_sym_fn, ACTIONS 119),
    (anon_sym_LBRACK, ACTIONS 59), (anon_sym_LBRACE, ACTIONS 61), (anon_sym_global, ACTIONS 63),
    (anon_sym_nonlocal, ACTIONS 65), (anon_sym_exec, ACTIONS 67), (anon_sym_type, ACTIONS 69),
    (anon_sym_class, ACTIONS 121), (anon_sym_struct, ACTIONS 121), (anon_sym_mut, ACTIONS 73),
    (anon_sym_out, ACTIONS 73), (anon_sym_trait, ACTIONS 123), (anon_sym_AT, ACTIONS 77),
    (anon_sym_DASH, ACTIONS 79), (anon_sym_PLUS, ACTIONS 79), (anon_sym_ref, ACTIONS 81),
    (anon_sym_var, ACTIONS 81), (anon_sym_not, ACTIONS 83), (anon_sym_TILDE, ACTIONS 79),
    (anon_sym_lambda, ACTIONS 85), (anon_sym_yield, ACTIONS 87), (sym_ellipsis, ACTIONS 89),
    (anon_sym___mlir_type, ACTIONS 91), (sym_integer, ACTIONS 93), (sym_float, ACTIONS 89),
    (anon_sym_await, ACTIONS 95), (sym_true, ACTIONS 93), (sym_false, ACTIONS 93),
    (sym_none, ACTIONS 93), (sym_comment, ACTIONS 3), (sym_line_continuation, ACTIONS 3),
    (sym__dedent, ACTIONS 129), (sym_string_start, ACTIONS 97)]"

definition parse_table_406 :: "(nat \<times> nat) list" where "parse_table_406 = [
    (sym__statement, STATE 925), (sym__simple_statements, STATE 925),
    (sym_import_statement, STATE 11814), (sym_future_import_statement, STATE 11814),
    (sym_import_from_statement, STATE 11814), (sym_print_statement, STATE 11814),
    (sym_assert_statement, STATE 11814), (sym_comptime_assert_statement, STATE 11814),
    (sym_expression_statement, STATE 11814), (sym_tuple_expression, STATE 12425),
    (sym_named_expression, STATE 7969), (sym__named_expression_lhs, STATE 12752),
    (sym_return_statement, STATE 11814), (sym_delete_statement, STATE 11814),
    (sym_raise_statement, STATE 11814), (sym_pass_statement, STATE 11814),
    (sym_break_statement, STATE 11814), (sym_continue_statement, STATE 11814),
    (sym_extension_definition, STATE 925), (sym_mlir_region, STATE 925),
    (sym_comptime_statement, STATE 925), (sym_if_statement, STATE 925),
    (sym_match_statement, STATE 925), (sym_for_statement, STATE 925),
    (sym_while_statement, STATE 925), (sym_try_statement, STATE 925),
    (sym_with_statement, STATE 925), (sym_function_definition, STATE 925),
    (sym_global_statement, STATE 11814), (sym_nonlocal_statement, STATE 11814),
    (sym_exec_statement, STATE 11814), (sym_type_alias_statement, STATE 11814),
    (sym_parameterized_alias_statement, STATE 11814), (sym_class_definition, STATE 925),
    (sym_trait_definition, STATE 925), (sym_decorated_definition, STATE 925),
    (sym_decorator, STATE 3670), (sym_block, STATE 6579), (sym_pattern, STATE 8086),
    (sym_tuple_pattern, STATE 8101), (sym_list_pattern, STATE 8101),
    (sym_list_splat_pattern, STATE 6819), (sym_as_pattern, STATE 7969),
    (sym_expression, STATE 9883), (sym_primary_expression, STATE 7326),
    (sym_comptime_expression, STATE 7017), (sym_transfer_expression, STATE 7017),
    (sym_not_operator, STATE 7969), (sym_boolean_operator, STATE 7969),
    (sym_binary_operator, STATE 7017), (sym_unary_operator, STATE 7017),
    (sym_comparison_operator, STATE 7969), (sym_lambda, STATE 7969),
    (sym_assignment, STATE 12425), (sym_augmented_assignment, STATE 12425),
    (sym_pattern_list, STATE 8578), (sym_yield, STATE 12425), (sym_attribute, STATE 6836),
    (sym_subscript, STATE 6838), (sym_call, STATE 6845), (sym_mlir_type, STATE 7017),
    (sym_list, STATE 7017), (sym_set, STATE 7017), (sym_tuple, STATE 7017),
    (sym_dictionary, STATE 7017), (sym_struct_literal, STATE 7017),
    (sym_list_comprehension, STATE 7017), (sym_dictionary_comprehension, STATE 7017),
    (sym_set_comprehension, STATE 7017), (sym_generator_expression, STATE 7017),
    (sym_parenthesized_expression, STATE 7017), (sym_conditional_expression, STATE 7969),
    (sym_concatenated_string, STATE 7017), (sym_string, STATE 6751), (sym_await, STATE 7017),
    (aux_sym_module_repeat1, STATE 925), (aux_sym_decorated_definition_repeat1, STATE 3670),
    (sym_identifier, ACTIONS 9), (anon_sym_import, ACTIONS 11), (anon_sym_from, ACTIONS 13),
    (anon_sym_LPAREN, ACTIONS 15), (anon_sym_STAR, ACTIONS 17), (anon_sym_print, ACTIONS 19),
    (anon_sym_comptime, ACTIONS 99), (anon_sym_assert, ACTIONS 23),
    (anon_sym___comptime_assert, ACTIONS 25), (anon_sym_return, ACTIONS 27),
    (anon_sym_del, ACTIONS 29), (anon_sym_raise, ACTIONS 31), (anon_sym_pass, ACTIONS 33),
    (anon_sym_break, ACTIONS 35), (anon_sym_continue, ACTIONS 37),
    (anon_sym___extension, ACTIONS 101), (anon_sym___mlir_region, ACTIONS 103),
    (anon_sym_if, ACTIONS 105), (anon_sym_match, ACTIONS 107), (anon_sym_async, ACTIONS 109),
    (anon_sym_for, ACTIONS 111), (anon_sym_while, ACTIONS 113), (anon_sym_try, ACTIONS 115),
    (anon_sym_with, ACTIONS 117), (anon_sym_def, ACTIONS 119), (anon_sym_fn, ACTIONS 119),
    (anon_sym_LBRACK, ACTIONS 59), (anon_sym_LBRACE, ACTIONS 61), (anon_sym_global, ACTIONS 63),
    (anon_sym_nonlocal, ACTIONS 65), (anon_sym_exec, ACTIONS 67), (anon_sym_type, ACTIONS 69),
    (anon_sym_class, ACTIONS 121), (anon_sym_struct, ACTIONS 121), (anon_sym_mut, ACTIONS 73),
    (anon_sym_out, ACTIONS 73), (anon_sym_trait, ACTIONS 123), (anon_sym_AT, ACTIONS 77),
    (anon_sym_DASH, ACTIONS 79), (anon_sym_PLUS, ACTIONS 79), (anon_sym_ref, ACTIONS 81),
    (anon_sym_var, ACTIONS 81), (anon_sym_not, ACTIONS 83), (anon_sym_TILDE, ACTIONS 79),
    (anon_sym_lambda, ACTIONS 85), (anon_sym_yield, ACTIONS 87), (sym_ellipsis, ACTIONS 89),
    (anon_sym___mlir_type, ACTIONS 91), (sym_integer, ACTIONS 93), (sym_float, ACTIONS 89),
    (anon_sym_await, ACTIONS 95), (sym_true, ACTIONS 93), (sym_false, ACTIONS 93),
    (sym_none, ACTIONS 93), (sym_comment, ACTIONS 3), (sym_line_continuation, ACTIONS 3),
    (sym__dedent, ACTIONS 129), (sym_string_start, ACTIONS 97)]"

definition parse_table_407 :: "(nat \<times> nat) list" where "parse_table_407 = [
    (sym__statement, STATE 925), (sym__simple_statements, STATE 925),
    (sym_import_statement, STATE 11814), (sym_future_import_statement, STATE 11814),
    (sym_import_from_statement, STATE 11814), (sym_print_statement, STATE 11814),
    (sym_assert_statement, STATE 11814), (sym_comptime_assert_statement, STATE 11814),
    (sym_expression_statement, STATE 11814), (sym_tuple_expression, STATE 12425),
    (sym_named_expression, STATE 7969), (sym__named_expression_lhs, STATE 12752),
    (sym_return_statement, STATE 11814), (sym_delete_statement, STATE 11814),
    (sym_raise_statement, STATE 11814), (sym_pass_statement, STATE 11814),
    (sym_break_statement, STATE 11814), (sym_continue_statement, STATE 11814),
    (sym_extension_definition, STATE 925), (sym_mlir_region, STATE 925),
    (sym_comptime_statement, STATE 925), (sym_if_statement, STATE 925),
    (sym_match_statement, STATE 925), (sym_for_statement, STATE 925),
    (sym_while_statement, STATE 925), (sym_try_statement, STATE 925),
    (sym_with_statement, STATE 925), (sym_function_definition, STATE 925),
    (sym_global_statement, STATE 11814), (sym_nonlocal_statement, STATE 11814),
    (sym_exec_statement, STATE 11814), (sym_type_alias_statement, STATE 11814),
    (sym_parameterized_alias_statement, STATE 11814), (sym_class_definition, STATE 925),
    (sym_trait_definition, STATE 925), (sym_decorated_definition, STATE 925),
    (sym_decorator, STATE 3670), (sym_block, STATE 6585), (sym_pattern, STATE 8086),
    (sym_tuple_pattern, STATE 8101), (sym_list_pattern, STATE 8101),
    (sym_list_splat_pattern, STATE 6819), (sym_as_pattern, STATE 7969),
    (sym_expression, STATE 9883), (sym_primary_expression, STATE 7326),
    (sym_comptime_expression, STATE 7017), (sym_transfer_expression, STATE 7017),
    (sym_not_operator, STATE 7969), (sym_boolean_operator, STATE 7969),
    (sym_binary_operator, STATE 7017), (sym_unary_operator, STATE 7017),
    (sym_comparison_operator, STATE 7969), (sym_lambda, STATE 7969),
    (sym_assignment, STATE 12425), (sym_augmented_assignment, STATE 12425),
    (sym_pattern_list, STATE 8578), (sym_yield, STATE 12425), (sym_attribute, STATE 6836),
    (sym_subscript, STATE 6838), (sym_call, STATE 6845), (sym_mlir_type, STATE 7017),
    (sym_list, STATE 7017), (sym_set, STATE 7017), (sym_tuple, STATE 7017),
    (sym_dictionary, STATE 7017), (sym_struct_literal, STATE 7017),
    (sym_list_comprehension, STATE 7017), (sym_dictionary_comprehension, STATE 7017),
    (sym_set_comprehension, STATE 7017), (sym_generator_expression, STATE 7017),
    (sym_parenthesized_expression, STATE 7017), (sym_conditional_expression, STATE 7969),
    (sym_concatenated_string, STATE 7017), (sym_string, STATE 6751), (sym_await, STATE 7017),
    (aux_sym_module_repeat1, STATE 925), (aux_sym_decorated_definition_repeat1, STATE 3670),
    (sym_identifier, ACTIONS 9), (anon_sym_import, ACTIONS 11), (anon_sym_from, ACTIONS 13),
    (anon_sym_LPAREN, ACTIONS 15), (anon_sym_STAR, ACTIONS 17), (anon_sym_print, ACTIONS 19),
    (anon_sym_comptime, ACTIONS 99), (anon_sym_assert, ACTIONS 23),
    (anon_sym___comptime_assert, ACTIONS 25), (anon_sym_return, ACTIONS 27),
    (anon_sym_del, ACTIONS 29), (anon_sym_raise, ACTIONS 31), (anon_sym_pass, ACTIONS 33),
    (anon_sym_break, ACTIONS 35), (anon_sym_continue, ACTIONS 37),
    (anon_sym___extension, ACTIONS 101), (anon_sym___mlir_region, ACTIONS 103),
    (anon_sym_if, ACTIONS 105), (anon_sym_match, ACTIONS 107), (anon_sym_async, ACTIONS 109),
    (anon_sym_for, ACTIONS 111), (anon_sym_while, ACTIONS 113), (anon_sym_try, ACTIONS 115),
    (anon_sym_with, ACTIONS 117), (anon_sym_def, ACTIONS 119), (anon_sym_fn, ACTIONS 119),
    (anon_sym_LBRACK, ACTIONS 59), (anon_sym_LBRACE, ACTIONS 61), (anon_sym_global, ACTIONS 63),
    (anon_sym_nonlocal, ACTIONS 65), (anon_sym_exec, ACTIONS 67), (anon_sym_type, ACTIONS 69),
    (anon_sym_class, ACTIONS 121), (anon_sym_struct, ACTIONS 121), (anon_sym_mut, ACTIONS 73),
    (anon_sym_out, ACTIONS 73), (anon_sym_trait, ACTIONS 123), (anon_sym_AT, ACTIONS 77),
    (anon_sym_DASH, ACTIONS 79), (anon_sym_PLUS, ACTIONS 79), (anon_sym_ref, ACTIONS 81),
    (anon_sym_var, ACTIONS 81), (anon_sym_not, ACTIONS 83), (anon_sym_TILDE, ACTIONS 79),
    (anon_sym_lambda, ACTIONS 85), (anon_sym_yield, ACTIONS 87), (sym_ellipsis, ACTIONS 89),
    (anon_sym___mlir_type, ACTIONS 91), (sym_integer, ACTIONS 93), (sym_float, ACTIONS 89),
    (anon_sym_await, ACTIONS 95), (sym_true, ACTIONS 93), (sym_false, ACTIONS 93),
    (sym_none, ACTIONS 93), (sym_comment, ACTIONS 3), (sym_line_continuation, ACTIONS 3),
    (sym__dedent, ACTIONS 129), (sym_string_start, ACTIONS 97)]"

definition parse_table_408 :: "(nat \<times> nat) list" where "parse_table_408 = [
    (sym__statement, STATE 925), (sym__simple_statements, STATE 925),
    (sym_import_statement, STATE 11814), (sym_future_import_statement, STATE 11814),
    (sym_import_from_statement, STATE 11814), (sym_print_statement, STATE 11814),
    (sym_assert_statement, STATE 11814), (sym_comptime_assert_statement, STATE 11814),
    (sym_expression_statement, STATE 11814), (sym_tuple_expression, STATE 12425),
    (sym_named_expression, STATE 7969), (sym__named_expression_lhs, STATE 12752),
    (sym_return_statement, STATE 11814), (sym_delete_statement, STATE 11814),
    (sym_raise_statement, STATE 11814), (sym_pass_statement, STATE 11814),
    (sym_break_statement, STATE 11814), (sym_continue_statement, STATE 11814),
    (sym_extension_definition, STATE 925), (sym_mlir_region, STATE 925),
    (sym_comptime_statement, STATE 925), (sym_if_statement, STATE 925),
    (sym_match_statement, STATE 925), (sym_for_statement, STATE 925),
    (sym_while_statement, STATE 925), (sym_try_statement, STATE 925),
    (sym_with_statement, STATE 925), (sym_function_definition, STATE 925),
    (sym_global_statement, STATE 11814), (sym_nonlocal_statement, STATE 11814),
    (sym_exec_statement, STATE 11814), (sym_type_alias_statement, STATE 11814),
    (sym_parameterized_alias_statement, STATE 11814), (sym_class_definition, STATE 925),
    (sym_trait_definition, STATE 925), (sym_decorated_definition, STATE 925),
    (sym_decorator, STATE 3670), (sym_block, STATE 6591), (sym_pattern, STATE 8086),
    (sym_tuple_pattern, STATE 8101), (sym_list_pattern, STATE 8101),
    (sym_list_splat_pattern, STATE 6819), (sym_as_pattern, STATE 7969),
    (sym_expression, STATE 9883), (sym_primary_expression, STATE 7326),
    (sym_comptime_expression, STATE 7017), (sym_transfer_expression, STATE 7017),
    (sym_not_operator, STATE 7969), (sym_boolean_operator, STATE 7969),
    (sym_binary_operator, STATE 7017), (sym_unary_operator, STATE 7017),
    (sym_comparison_operator, STATE 7969), (sym_lambda, STATE 7969),
    (sym_assignment, STATE 12425), (sym_augmented_assignment, STATE 12425),
    (sym_pattern_list, STATE 8578), (sym_yield, STATE 12425), (sym_attribute, STATE 6836),
    (sym_subscript, STATE 6838), (sym_call, STATE 6845), (sym_mlir_type, STATE 7017),
    (sym_list, STATE 7017), (sym_set, STATE 7017), (sym_tuple, STATE 7017),
    (sym_dictionary, STATE 7017), (sym_struct_literal, STATE 7017),
    (sym_list_comprehension, STATE 7017), (sym_dictionary_comprehension, STATE 7017),
    (sym_set_comprehension, STATE 7017), (sym_generator_expression, STATE 7017),
    (sym_parenthesized_expression, STATE 7017), (sym_conditional_expression, STATE 7969),
    (sym_concatenated_string, STATE 7017), (sym_string, STATE 6751), (sym_await, STATE 7017),
    (aux_sym_module_repeat1, STATE 925), (aux_sym_decorated_definition_repeat1, STATE 3670),
    (sym_identifier, ACTIONS 9), (anon_sym_import, ACTIONS 11), (anon_sym_from, ACTIONS 13),
    (anon_sym_LPAREN, ACTIONS 15), (anon_sym_STAR, ACTIONS 17), (anon_sym_print, ACTIONS 19),
    (anon_sym_comptime, ACTIONS 99), (anon_sym_assert, ACTIONS 23),
    (anon_sym___comptime_assert, ACTIONS 25), (anon_sym_return, ACTIONS 27),
    (anon_sym_del, ACTIONS 29), (anon_sym_raise, ACTIONS 31), (anon_sym_pass, ACTIONS 33),
    (anon_sym_break, ACTIONS 35), (anon_sym_continue, ACTIONS 37),
    (anon_sym___extension, ACTIONS 101), (anon_sym___mlir_region, ACTIONS 103),
    (anon_sym_if, ACTIONS 105), (anon_sym_match, ACTIONS 107), (anon_sym_async, ACTIONS 109),
    (anon_sym_for, ACTIONS 111), (anon_sym_while, ACTIONS 113), (anon_sym_try, ACTIONS 115),
    (anon_sym_with, ACTIONS 117), (anon_sym_def, ACTIONS 119), (anon_sym_fn, ACTIONS 119),
    (anon_sym_LBRACK, ACTIONS 59), (anon_sym_LBRACE, ACTIONS 61), (anon_sym_global, ACTIONS 63),
    (anon_sym_nonlocal, ACTIONS 65), (anon_sym_exec, ACTIONS 67), (anon_sym_type, ACTIONS 69),
    (anon_sym_class, ACTIONS 121), (anon_sym_struct, ACTIONS 121), (anon_sym_mut, ACTIONS 73),
    (anon_sym_out, ACTIONS 73), (anon_sym_trait, ACTIONS 123), (anon_sym_AT, ACTIONS 77),
    (anon_sym_DASH, ACTIONS 79), (anon_sym_PLUS, ACTIONS 79), (anon_sym_ref, ACTIONS 81),
    (anon_sym_var, ACTIONS 81), (anon_sym_not, ACTIONS 83), (anon_sym_TILDE, ACTIONS 79),
    (anon_sym_lambda, ACTIONS 85), (anon_sym_yield, ACTIONS 87), (sym_ellipsis, ACTIONS 89),
    (anon_sym___mlir_type, ACTIONS 91), (sym_integer, ACTIONS 93), (sym_float, ACTIONS 89),
    (anon_sym_await, ACTIONS 95), (sym_true, ACTIONS 93), (sym_false, ACTIONS 93),
    (sym_none, ACTIONS 93), (sym_comment, ACTIONS 3), (sym_line_continuation, ACTIONS 3),
    (sym__dedent, ACTIONS 129), (sym_string_start, ACTIONS 97)]"

definition parse_table_409 :: "(nat \<times> nat) list" where "parse_table_409 = [
    (sym__statement, STATE 925), (sym__simple_statements, STATE 925),
    (sym_import_statement, STATE 11814), (sym_future_import_statement, STATE 11814),
    (sym_import_from_statement, STATE 11814), (sym_print_statement, STATE 11814),
    (sym_assert_statement, STATE 11814), (sym_comptime_assert_statement, STATE 11814),
    (sym_expression_statement, STATE 11814), (sym_tuple_expression, STATE 12425),
    (sym_named_expression, STATE 7969), (sym__named_expression_lhs, STATE 12752),
    (sym_return_statement, STATE 11814), (sym_delete_statement, STATE 11814),
    (sym_raise_statement, STATE 11814), (sym_pass_statement, STATE 11814),
    (sym_break_statement, STATE 11814), (sym_continue_statement, STATE 11814),
    (sym_extension_definition, STATE 925), (sym_mlir_region, STATE 925),
    (sym_comptime_statement, STATE 925), (sym_if_statement, STATE 925),
    (sym_match_statement, STATE 925), (sym_for_statement, STATE 925),
    (sym_while_statement, STATE 925), (sym_try_statement, STATE 925),
    (sym_with_statement, STATE 925), (sym_function_definition, STATE 925),
    (sym_global_statement, STATE 11814), (sym_nonlocal_statement, STATE 11814),
    (sym_exec_statement, STATE 11814), (sym_type_alias_statement, STATE 11814),
    (sym_parameterized_alias_statement, STATE 11814), (sym_class_definition, STATE 925),
    (sym_trait_definition, STATE 925), (sym_decorated_definition, STATE 925),
    (sym_decorator, STATE 3670), (sym_block, STATE 6597), (sym_pattern, STATE 8086),
    (sym_tuple_pattern, STATE 8101), (sym_list_pattern, STATE 8101),
    (sym_list_splat_pattern, STATE 6819), (sym_as_pattern, STATE 7969),
    (sym_expression, STATE 9883), (sym_primary_expression, STATE 7326),
    (sym_comptime_expression, STATE 7017), (sym_transfer_expression, STATE 7017),
    (sym_not_operator, STATE 7969), (sym_boolean_operator, STATE 7969),
    (sym_binary_operator, STATE 7017), (sym_unary_operator, STATE 7017),
    (sym_comparison_operator, STATE 7969), (sym_lambda, STATE 7969),
    (sym_assignment, STATE 12425), (sym_augmented_assignment, STATE 12425),
    (sym_pattern_list, STATE 8578), (sym_yield, STATE 12425), (sym_attribute, STATE 6836),
    (sym_subscript, STATE 6838), (sym_call, STATE 6845), (sym_mlir_type, STATE 7017),
    (sym_list, STATE 7017), (sym_set, STATE 7017), (sym_tuple, STATE 7017),
    (sym_dictionary, STATE 7017), (sym_struct_literal, STATE 7017),
    (sym_list_comprehension, STATE 7017), (sym_dictionary_comprehension, STATE 7017),
    (sym_set_comprehension, STATE 7017), (sym_generator_expression, STATE 7017),
    (sym_parenthesized_expression, STATE 7017), (sym_conditional_expression, STATE 7969),
    (sym_concatenated_string, STATE 7017), (sym_string, STATE 6751), (sym_await, STATE 7017),
    (aux_sym_module_repeat1, STATE 925), (aux_sym_decorated_definition_repeat1, STATE 3670),
    (sym_identifier, ACTIONS 9), (anon_sym_import, ACTIONS 11), (anon_sym_from, ACTIONS 13),
    (anon_sym_LPAREN, ACTIONS 15), (anon_sym_STAR, ACTIONS 17), (anon_sym_print, ACTIONS 19),
    (anon_sym_comptime, ACTIONS 99), (anon_sym_assert, ACTIONS 23),
    (anon_sym___comptime_assert, ACTIONS 25), (anon_sym_return, ACTIONS 27),
    (anon_sym_del, ACTIONS 29), (anon_sym_raise, ACTIONS 31), (anon_sym_pass, ACTIONS 33),
    (anon_sym_break, ACTIONS 35), (anon_sym_continue, ACTIONS 37),
    (anon_sym___extension, ACTIONS 101), (anon_sym___mlir_region, ACTIONS 103),
    (anon_sym_if, ACTIONS 105), (anon_sym_match, ACTIONS 107), (anon_sym_async, ACTIONS 109),
    (anon_sym_for, ACTIONS 111), (anon_sym_while, ACTIONS 113), (anon_sym_try, ACTIONS 115),
    (anon_sym_with, ACTIONS 117), (anon_sym_def, ACTIONS 119), (anon_sym_fn, ACTIONS 119),
    (anon_sym_LBRACK, ACTIONS 59), (anon_sym_LBRACE, ACTIONS 61), (anon_sym_global, ACTIONS 63),
    (anon_sym_nonlocal, ACTIONS 65), (anon_sym_exec, ACTIONS 67), (anon_sym_type, ACTIONS 69),
    (anon_sym_class, ACTIONS 121), (anon_sym_struct, ACTIONS 121), (anon_sym_mut, ACTIONS 73),
    (anon_sym_out, ACTIONS 73), (anon_sym_trait, ACTIONS 123), (anon_sym_AT, ACTIONS 77),
    (anon_sym_DASH, ACTIONS 79), (anon_sym_PLUS, ACTIONS 79), (anon_sym_ref, ACTIONS 81),
    (anon_sym_var, ACTIONS 81), (anon_sym_not, ACTIONS 83), (anon_sym_TILDE, ACTIONS 79),
    (anon_sym_lambda, ACTIONS 85), (anon_sym_yield, ACTIONS 87), (sym_ellipsis, ACTIONS 89),
    (anon_sym___mlir_type, ACTIONS 91), (sym_integer, ACTIONS 93), (sym_float, ACTIONS 89),
    (anon_sym_await, ACTIONS 95), (sym_true, ACTIONS 93), (sym_false, ACTIONS 93),
    (sym_none, ACTIONS 93), (sym_comment, ACTIONS 3), (sym_line_continuation, ACTIONS 3),
    (sym__dedent, ACTIONS 129), (sym_string_start, ACTIONS 97)]"

definition parse_table_410 :: "(nat \<times> nat) list" where "parse_table_410 = [
    (sym__statement, STATE 925), (sym__simple_statements, STATE 925),
    (sym_import_statement, STATE 11814), (sym_future_import_statement, STATE 11814),
    (sym_import_from_statement, STATE 11814), (sym_print_statement, STATE 11814),
    (sym_assert_statement, STATE 11814), (sym_comptime_assert_statement, STATE 11814),
    (sym_expression_statement, STATE 11814), (sym_tuple_expression, STATE 12425),
    (sym_named_expression, STATE 7969), (sym__named_expression_lhs, STATE 12752),
    (sym_return_statement, STATE 11814), (sym_delete_statement, STATE 11814),
    (sym_raise_statement, STATE 11814), (sym_pass_statement, STATE 11814),
    (sym_break_statement, STATE 11814), (sym_continue_statement, STATE 11814),
    (sym_extension_definition, STATE 925), (sym_mlir_region, STATE 925),
    (sym_comptime_statement, STATE 925), (sym_if_statement, STATE 925),
    (sym_match_statement, STATE 925), (sym_for_statement, STATE 925),
    (sym_while_statement, STATE 925), (sym_try_statement, STATE 925),
    (sym_with_statement, STATE 925), (sym_function_definition, STATE 925),
    (sym_global_statement, STATE 11814), (sym_nonlocal_statement, STATE 11814),
    (sym_exec_statement, STATE 11814), (sym_type_alias_statement, STATE 11814),
    (sym_parameterized_alias_statement, STATE 11814), (sym_class_definition, STATE 925),
    (sym_trait_definition, STATE 925), (sym_decorated_definition, STATE 925),
    (sym_decorator, STATE 3670), (sym_block, STATE 6616), (sym_pattern, STATE 8086),
    (sym_tuple_pattern, STATE 8101), (sym_list_pattern, STATE 8101),
    (sym_list_splat_pattern, STATE 6819), (sym_as_pattern, STATE 7969),
    (sym_expression, STATE 9883), (sym_primary_expression, STATE 7326),
    (sym_comptime_expression, STATE 7017), (sym_transfer_expression, STATE 7017),
    (sym_not_operator, STATE 7969), (sym_boolean_operator, STATE 7969),
    (sym_binary_operator, STATE 7017), (sym_unary_operator, STATE 7017),
    (sym_comparison_operator, STATE 7969), (sym_lambda, STATE 7969),
    (sym_assignment, STATE 12425), (sym_augmented_assignment, STATE 12425),
    (sym_pattern_list, STATE 8578), (sym_yield, STATE 12425), (sym_attribute, STATE 6836),
    (sym_subscript, STATE 6838), (sym_call, STATE 6845), (sym_mlir_type, STATE 7017),
    (sym_list, STATE 7017), (sym_set, STATE 7017), (sym_tuple, STATE 7017),
    (sym_dictionary, STATE 7017), (sym_struct_literal, STATE 7017),
    (sym_list_comprehension, STATE 7017), (sym_dictionary_comprehension, STATE 7017),
    (sym_set_comprehension, STATE 7017), (sym_generator_expression, STATE 7017),
    (sym_parenthesized_expression, STATE 7017), (sym_conditional_expression, STATE 7969),
    (sym_concatenated_string, STATE 7017), (sym_string, STATE 6751), (sym_await, STATE 7017),
    (aux_sym_module_repeat1, STATE 925), (aux_sym_decorated_definition_repeat1, STATE 3670),
    (sym_identifier, ACTIONS 9), (anon_sym_import, ACTIONS 11), (anon_sym_from, ACTIONS 13),
    (anon_sym_LPAREN, ACTIONS 15), (anon_sym_STAR, ACTIONS 17), (anon_sym_print, ACTIONS 19),
    (anon_sym_comptime, ACTIONS 99), (anon_sym_assert, ACTIONS 23),
    (anon_sym___comptime_assert, ACTIONS 25), (anon_sym_return, ACTIONS 27),
    (anon_sym_del, ACTIONS 29), (anon_sym_raise, ACTIONS 31), (anon_sym_pass, ACTIONS 33),
    (anon_sym_break, ACTIONS 35), (anon_sym_continue, ACTIONS 37),
    (anon_sym___extension, ACTIONS 101), (anon_sym___mlir_region, ACTIONS 103),
    (anon_sym_if, ACTIONS 105), (anon_sym_match, ACTIONS 107), (anon_sym_async, ACTIONS 109),
    (anon_sym_for, ACTIONS 111), (anon_sym_while, ACTIONS 113), (anon_sym_try, ACTIONS 115),
    (anon_sym_with, ACTIONS 117), (anon_sym_def, ACTIONS 119), (anon_sym_fn, ACTIONS 119),
    (anon_sym_LBRACK, ACTIONS 59), (anon_sym_LBRACE, ACTIONS 61), (anon_sym_global, ACTIONS 63),
    (anon_sym_nonlocal, ACTIONS 65), (anon_sym_exec, ACTIONS 67), (anon_sym_type, ACTIONS 69),
    (anon_sym_class, ACTIONS 121), (anon_sym_struct, ACTIONS 121), (anon_sym_mut, ACTIONS 73),
    (anon_sym_out, ACTIONS 73), (anon_sym_trait, ACTIONS 123), (anon_sym_AT, ACTIONS 77),
    (anon_sym_DASH, ACTIONS 79), (anon_sym_PLUS, ACTIONS 79), (anon_sym_ref, ACTIONS 81),
    (anon_sym_var, ACTIONS 81), (anon_sym_not, ACTIONS 83), (anon_sym_TILDE, ACTIONS 79),
    (anon_sym_lambda, ACTIONS 85), (anon_sym_yield, ACTIONS 87), (sym_ellipsis, ACTIONS 89),
    (anon_sym___mlir_type, ACTIONS 91), (sym_integer, ACTIONS 93), (sym_float, ACTIONS 89),
    (anon_sym_await, ACTIONS 95), (sym_true, ACTIONS 93), (sym_false, ACTIONS 93),
    (sym_none, ACTIONS 93), (sym_comment, ACTIONS 3), (sym_line_continuation, ACTIONS 3),
    (sym__dedent, ACTIONS 129), (sym_string_start, ACTIONS 97)]"

definition parse_table_411 :: "(nat \<times> nat) list" where "parse_table_411 = [
    (sym__statement, STATE 925), (sym__simple_statements, STATE 925),
    (sym_import_statement, STATE 11814), (sym_future_import_statement, STATE 11814),
    (sym_import_from_statement, STATE 11814), (sym_print_statement, STATE 11814),
    (sym_assert_statement, STATE 11814), (sym_comptime_assert_statement, STATE 11814),
    (sym_expression_statement, STATE 11814), (sym_tuple_expression, STATE 12425),
    (sym_named_expression, STATE 7969), (sym__named_expression_lhs, STATE 12752),
    (sym_return_statement, STATE 11814), (sym_delete_statement, STATE 11814),
    (sym_raise_statement, STATE 11814), (sym_pass_statement, STATE 11814),
    (sym_break_statement, STATE 11814), (sym_continue_statement, STATE 11814),
    (sym_extension_definition, STATE 925), (sym_mlir_region, STATE 925),
    (sym_comptime_statement, STATE 925), (sym_if_statement, STATE 925),
    (sym_match_statement, STATE 925), (sym_for_statement, STATE 925),
    (sym_while_statement, STATE 925), (sym_try_statement, STATE 925),
    (sym_with_statement, STATE 925), (sym_function_definition, STATE 925),
    (sym_global_statement, STATE 11814), (sym_nonlocal_statement, STATE 11814),
    (sym_exec_statement, STATE 11814), (sym_type_alias_statement, STATE 11814),
    (sym_parameterized_alias_statement, STATE 11814), (sym_class_definition, STATE 925),
    (sym_trait_definition, STATE 925), (sym_decorated_definition, STATE 925),
    (sym_decorator, STATE 3670), (sym_block, STATE 6633), (sym_pattern, STATE 8086),
    (sym_tuple_pattern, STATE 8101), (sym_list_pattern, STATE 8101),
    (sym_list_splat_pattern, STATE 6819), (sym_as_pattern, STATE 7969),
    (sym_expression, STATE 9883), (sym_primary_expression, STATE 7326),
    (sym_comptime_expression, STATE 7017), (sym_transfer_expression, STATE 7017),
    (sym_not_operator, STATE 7969), (sym_boolean_operator, STATE 7969),
    (sym_binary_operator, STATE 7017), (sym_unary_operator, STATE 7017),
    (sym_comparison_operator, STATE 7969), (sym_lambda, STATE 7969),
    (sym_assignment, STATE 12425), (sym_augmented_assignment, STATE 12425),
    (sym_pattern_list, STATE 8578), (sym_yield, STATE 12425), (sym_attribute, STATE 6836),
    (sym_subscript, STATE 6838), (sym_call, STATE 6845), (sym_mlir_type, STATE 7017),
    (sym_list, STATE 7017), (sym_set, STATE 7017), (sym_tuple, STATE 7017),
    (sym_dictionary, STATE 7017), (sym_struct_literal, STATE 7017),
    (sym_list_comprehension, STATE 7017), (sym_dictionary_comprehension, STATE 7017),
    (sym_set_comprehension, STATE 7017), (sym_generator_expression, STATE 7017),
    (sym_parenthesized_expression, STATE 7017), (sym_conditional_expression, STATE 7969),
    (sym_concatenated_string, STATE 7017), (sym_string, STATE 6751), (sym_await, STATE 7017),
    (aux_sym_module_repeat1, STATE 925), (aux_sym_decorated_definition_repeat1, STATE 3670),
    (sym_identifier, ACTIONS 9), (anon_sym_import, ACTIONS 11), (anon_sym_from, ACTIONS 13),
    (anon_sym_LPAREN, ACTIONS 15), (anon_sym_STAR, ACTIONS 17), (anon_sym_print, ACTIONS 19),
    (anon_sym_comptime, ACTIONS 99), (anon_sym_assert, ACTIONS 23),
    (anon_sym___comptime_assert, ACTIONS 25), (anon_sym_return, ACTIONS 27),
    (anon_sym_del, ACTIONS 29), (anon_sym_raise, ACTIONS 31), (anon_sym_pass, ACTIONS 33),
    (anon_sym_break, ACTIONS 35), (anon_sym_continue, ACTIONS 37),
    (anon_sym___extension, ACTIONS 101), (anon_sym___mlir_region, ACTIONS 103),
    (anon_sym_if, ACTIONS 105), (anon_sym_match, ACTIONS 107), (anon_sym_async, ACTIONS 109),
    (anon_sym_for, ACTIONS 111), (anon_sym_while, ACTIONS 113), (anon_sym_try, ACTIONS 115),
    (anon_sym_with, ACTIONS 117), (anon_sym_def, ACTIONS 119), (anon_sym_fn, ACTIONS 119),
    (anon_sym_LBRACK, ACTIONS 59), (anon_sym_LBRACE, ACTIONS 61), (anon_sym_global, ACTIONS 63),
    (anon_sym_nonlocal, ACTIONS 65), (anon_sym_exec, ACTIONS 67), (anon_sym_type, ACTIONS 69),
    (anon_sym_class, ACTIONS 121), (anon_sym_struct, ACTIONS 121), (anon_sym_mut, ACTIONS 73),
    (anon_sym_out, ACTIONS 73), (anon_sym_trait, ACTIONS 123), (anon_sym_AT, ACTIONS 77),
    (anon_sym_DASH, ACTIONS 79), (anon_sym_PLUS, ACTIONS 79), (anon_sym_ref, ACTIONS 81),
    (anon_sym_var, ACTIONS 81), (anon_sym_not, ACTIONS 83), (anon_sym_TILDE, ACTIONS 79),
    (anon_sym_lambda, ACTIONS 85), (anon_sym_yield, ACTIONS 87), (sym_ellipsis, ACTIONS 89),
    (anon_sym___mlir_type, ACTIONS 91), (sym_integer, ACTIONS 93), (sym_float, ACTIONS 89),
    (anon_sym_await, ACTIONS 95), (sym_true, ACTIONS 93), (sym_false, ACTIONS 93),
    (sym_none, ACTIONS 93), (sym_comment, ACTIONS 3), (sym_line_continuation, ACTIONS 3),
    (sym__dedent, ACTIONS 129), (sym_string_start, ACTIONS 97)]"

definition parse_table_412 :: "(nat \<times> nat) list" where "parse_table_412 = [
    (sym__statement, STATE 925), (sym__simple_statements, STATE 925),
    (sym_import_statement, STATE 11814), (sym_future_import_statement, STATE 11814),
    (sym_import_from_statement, STATE 11814), (sym_print_statement, STATE 11814),
    (sym_assert_statement, STATE 11814), (sym_comptime_assert_statement, STATE 11814),
    (sym_expression_statement, STATE 11814), (sym_tuple_expression, STATE 12425),
    (sym_named_expression, STATE 7969), (sym__named_expression_lhs, STATE 12752),
    (sym_return_statement, STATE 11814), (sym_delete_statement, STATE 11814),
    (sym_raise_statement, STATE 11814), (sym_pass_statement, STATE 11814),
    (sym_break_statement, STATE 11814), (sym_continue_statement, STATE 11814),
    (sym_extension_definition, STATE 925), (sym_mlir_region, STATE 925),
    (sym_comptime_statement, STATE 925), (sym_if_statement, STATE 925),
    (sym_match_statement, STATE 925), (sym_for_statement, STATE 925),
    (sym_while_statement, STATE 925), (sym_try_statement, STATE 925),
    (sym_with_statement, STATE 925), (sym_function_definition, STATE 925),
    (sym_global_statement, STATE 11814), (sym_nonlocal_statement, STATE 11814),
    (sym_exec_statement, STATE 11814), (sym_type_alias_statement, STATE 11814),
    (sym_parameterized_alias_statement, STATE 11814), (sym_class_definition, STATE 925),
    (sym_trait_definition, STATE 925), (sym_decorated_definition, STATE 925),
    (sym_decorator, STATE 3670), (sym_block, STATE 6634), (sym_pattern, STATE 8086),
    (sym_tuple_pattern, STATE 8101), (sym_list_pattern, STATE 8101),
    (sym_list_splat_pattern, STATE 6819), (sym_as_pattern, STATE 7969),
    (sym_expression, STATE 9883), (sym_primary_expression, STATE 7326),
    (sym_comptime_expression, STATE 7017), (sym_transfer_expression, STATE 7017),
    (sym_not_operator, STATE 7969), (sym_boolean_operator, STATE 7969),
    (sym_binary_operator, STATE 7017), (sym_unary_operator, STATE 7017),
    (sym_comparison_operator, STATE 7969), (sym_lambda, STATE 7969),
    (sym_assignment, STATE 12425), (sym_augmented_assignment, STATE 12425),
    (sym_pattern_list, STATE 8578), (sym_yield, STATE 12425), (sym_attribute, STATE 6836),
    (sym_subscript, STATE 6838), (sym_call, STATE 6845), (sym_mlir_type, STATE 7017),
    (sym_list, STATE 7017), (sym_set, STATE 7017), (sym_tuple, STATE 7017),
    (sym_dictionary, STATE 7017), (sym_struct_literal, STATE 7017),
    (sym_list_comprehension, STATE 7017), (sym_dictionary_comprehension, STATE 7017),
    (sym_set_comprehension, STATE 7017), (sym_generator_expression, STATE 7017),
    (sym_parenthesized_expression, STATE 7017), (sym_conditional_expression, STATE 7969),
    (sym_concatenated_string, STATE 7017), (sym_string, STATE 6751), (sym_await, STATE 7017),
    (aux_sym_module_repeat1, STATE 925), (aux_sym_decorated_definition_repeat1, STATE 3670),
    (sym_identifier, ACTIONS 9), (anon_sym_import, ACTIONS 11), (anon_sym_from, ACTIONS 13),
    (anon_sym_LPAREN, ACTIONS 15), (anon_sym_STAR, ACTIONS 17), (anon_sym_print, ACTIONS 19),
    (anon_sym_comptime, ACTIONS 99), (anon_sym_assert, ACTIONS 23),
    (anon_sym___comptime_assert, ACTIONS 25), (anon_sym_return, ACTIONS 27),
    (anon_sym_del, ACTIONS 29), (anon_sym_raise, ACTIONS 31), (anon_sym_pass, ACTIONS 33),
    (anon_sym_break, ACTIONS 35), (anon_sym_continue, ACTIONS 37),
    (anon_sym___extension, ACTIONS 101), (anon_sym___mlir_region, ACTIONS 103),
    (anon_sym_if, ACTIONS 105), (anon_sym_match, ACTIONS 107), (anon_sym_async, ACTIONS 109),
    (anon_sym_for, ACTIONS 111), (anon_sym_while, ACTIONS 113), (anon_sym_try, ACTIONS 115),
    (anon_sym_with, ACTIONS 117), (anon_sym_def, ACTIONS 119), (anon_sym_fn, ACTIONS 119),
    (anon_sym_LBRACK, ACTIONS 59), (anon_sym_LBRACE, ACTIONS 61), (anon_sym_global, ACTIONS 63),
    (anon_sym_nonlocal, ACTIONS 65), (anon_sym_exec, ACTIONS 67), (anon_sym_type, ACTIONS 69),
    (anon_sym_class, ACTIONS 121), (anon_sym_struct, ACTIONS 121), (anon_sym_mut, ACTIONS 73),
    (anon_sym_out, ACTIONS 73), (anon_sym_trait, ACTIONS 123), (anon_sym_AT, ACTIONS 77),
    (anon_sym_DASH, ACTIONS 79), (anon_sym_PLUS, ACTIONS 79), (anon_sym_ref, ACTIONS 81),
    (anon_sym_var, ACTIONS 81), (anon_sym_not, ACTIONS 83), (anon_sym_TILDE, ACTIONS 79),
    (anon_sym_lambda, ACTIONS 85), (anon_sym_yield, ACTIONS 87), (sym_ellipsis, ACTIONS 89),
    (anon_sym___mlir_type, ACTIONS 91), (sym_integer, ACTIONS 93), (sym_float, ACTIONS 89),
    (anon_sym_await, ACTIONS 95), (sym_true, ACTIONS 93), (sym_false, ACTIONS 93),
    (sym_none, ACTIONS 93), (sym_comment, ACTIONS 3), (sym_line_continuation, ACTIONS 3),
    (sym__dedent, ACTIONS 129), (sym_string_start, ACTIONS 97)]"

definition parse_table_413 :: "(nat \<times> nat) list" where "parse_table_413 = [
    (sym__statement, STATE 925), (sym__simple_statements, STATE 925),
    (sym_import_statement, STATE 11814), (sym_future_import_statement, STATE 11814),
    (sym_import_from_statement, STATE 11814), (sym_print_statement, STATE 11814),
    (sym_assert_statement, STATE 11814), (sym_comptime_assert_statement, STATE 11814),
    (sym_expression_statement, STATE 11814), (sym_tuple_expression, STATE 12425),
    (sym_named_expression, STATE 7969), (sym__named_expression_lhs, STATE 12752),
    (sym_return_statement, STATE 11814), (sym_delete_statement, STATE 11814),
    (sym_raise_statement, STATE 11814), (sym_pass_statement, STATE 11814),
    (sym_break_statement, STATE 11814), (sym_continue_statement, STATE 11814),
    (sym_extension_definition, STATE 925), (sym_mlir_region, STATE 925),
    (sym_comptime_statement, STATE 925), (sym_if_statement, STATE 925),
    (sym_match_statement, STATE 925), (sym_for_statement, STATE 925),
    (sym_while_statement, STATE 925), (sym_try_statement, STATE 925),
    (sym_with_statement, STATE 925), (sym_function_definition, STATE 925),
    (sym_global_statement, STATE 11814), (sym_nonlocal_statement, STATE 11814),
    (sym_exec_statement, STATE 11814), (sym_type_alias_statement, STATE 11814),
    (sym_parameterized_alias_statement, STATE 11814), (sym_class_definition, STATE 925),
    (sym_trait_definition, STATE 925), (sym_decorated_definition, STATE 925),
    (sym_decorator, STATE 3670), (sym_block, STATE 6636), (sym_pattern, STATE 8086),
    (sym_tuple_pattern, STATE 8101), (sym_list_pattern, STATE 8101),
    (sym_list_splat_pattern, STATE 6819), (sym_as_pattern, STATE 7969),
    (sym_expression, STATE 9883), (sym_primary_expression, STATE 7326),
    (sym_comptime_expression, STATE 7017), (sym_transfer_expression, STATE 7017),
    (sym_not_operator, STATE 7969), (sym_boolean_operator, STATE 7969),
    (sym_binary_operator, STATE 7017), (sym_unary_operator, STATE 7017),
    (sym_comparison_operator, STATE 7969), (sym_lambda, STATE 7969),
    (sym_assignment, STATE 12425), (sym_augmented_assignment, STATE 12425),
    (sym_pattern_list, STATE 8578), (sym_yield, STATE 12425), (sym_attribute, STATE 6836),
    (sym_subscript, STATE 6838), (sym_call, STATE 6845), (sym_mlir_type, STATE 7017),
    (sym_list, STATE 7017), (sym_set, STATE 7017), (sym_tuple, STATE 7017),
    (sym_dictionary, STATE 7017), (sym_struct_literal, STATE 7017),
    (sym_list_comprehension, STATE 7017), (sym_dictionary_comprehension, STATE 7017),
    (sym_set_comprehension, STATE 7017), (sym_generator_expression, STATE 7017),
    (sym_parenthesized_expression, STATE 7017), (sym_conditional_expression, STATE 7969),
    (sym_concatenated_string, STATE 7017), (sym_string, STATE 6751), (sym_await, STATE 7017),
    (aux_sym_module_repeat1, STATE 925), (aux_sym_decorated_definition_repeat1, STATE 3670),
    (sym_identifier, ACTIONS 9), (anon_sym_import, ACTIONS 11), (anon_sym_from, ACTIONS 13),
    (anon_sym_LPAREN, ACTIONS 15), (anon_sym_STAR, ACTIONS 17), (anon_sym_print, ACTIONS 19),
    (anon_sym_comptime, ACTIONS 99), (anon_sym_assert, ACTIONS 23),
    (anon_sym___comptime_assert, ACTIONS 25), (anon_sym_return, ACTIONS 27),
    (anon_sym_del, ACTIONS 29), (anon_sym_raise, ACTIONS 31), (anon_sym_pass, ACTIONS 33),
    (anon_sym_break, ACTIONS 35), (anon_sym_continue, ACTIONS 37),
    (anon_sym___extension, ACTIONS 101), (anon_sym___mlir_region, ACTIONS 103),
    (anon_sym_if, ACTIONS 105), (anon_sym_match, ACTIONS 107), (anon_sym_async, ACTIONS 109),
    (anon_sym_for, ACTIONS 111), (anon_sym_while, ACTIONS 113), (anon_sym_try, ACTIONS 115),
    (anon_sym_with, ACTIONS 117), (anon_sym_def, ACTIONS 119), (anon_sym_fn, ACTIONS 119),
    (anon_sym_LBRACK, ACTIONS 59), (anon_sym_LBRACE, ACTIONS 61), (anon_sym_global, ACTIONS 63),
    (anon_sym_nonlocal, ACTIONS 65), (anon_sym_exec, ACTIONS 67), (anon_sym_type, ACTIONS 69),
    (anon_sym_class, ACTIONS 121), (anon_sym_struct, ACTIONS 121), (anon_sym_mut, ACTIONS 73),
    (anon_sym_out, ACTIONS 73), (anon_sym_trait, ACTIONS 123), (anon_sym_AT, ACTIONS 77),
    (anon_sym_DASH, ACTIONS 79), (anon_sym_PLUS, ACTIONS 79), (anon_sym_ref, ACTIONS 81),
    (anon_sym_var, ACTIONS 81), (anon_sym_not, ACTIONS 83), (anon_sym_TILDE, ACTIONS 79),
    (anon_sym_lambda, ACTIONS 85), (anon_sym_yield, ACTIONS 87), (sym_ellipsis, ACTIONS 89),
    (anon_sym___mlir_type, ACTIONS 91), (sym_integer, ACTIONS 93), (sym_float, ACTIONS 89),
    (anon_sym_await, ACTIONS 95), (sym_true, ACTIONS 93), (sym_false, ACTIONS 93),
    (sym_none, ACTIONS 93), (sym_comment, ACTIONS 3), (sym_line_continuation, ACTIONS 3),
    (sym__dedent, ACTIONS 129), (sym_string_start, ACTIONS 97)]"

definition parse_table_414 :: "(nat \<times> nat) list" where "parse_table_414 = [
    (sym__statement, STATE 925), (sym__simple_statements, STATE 925),
    (sym_import_statement, STATE 11814), (sym_future_import_statement, STATE 11814),
    (sym_import_from_statement, STATE 11814), (sym_print_statement, STATE 11814),
    (sym_assert_statement, STATE 11814), (sym_comptime_assert_statement, STATE 11814),
    (sym_expression_statement, STATE 11814), (sym_tuple_expression, STATE 12425),
    (sym_named_expression, STATE 7969), (sym__named_expression_lhs, STATE 12752),
    (sym_return_statement, STATE 11814), (sym_delete_statement, STATE 11814),
    (sym_raise_statement, STATE 11814), (sym_pass_statement, STATE 11814),
    (sym_break_statement, STATE 11814), (sym_continue_statement, STATE 11814),
    (sym_extension_definition, STATE 925), (sym_mlir_region, STATE 925),
    (sym_comptime_statement, STATE 925), (sym_if_statement, STATE 925),
    (sym_match_statement, STATE 925), (sym_for_statement, STATE 925),
    (sym_while_statement, STATE 925), (sym_try_statement, STATE 925),
    (sym_with_statement, STATE 925), (sym_function_definition, STATE 925),
    (sym_global_statement, STATE 11814), (sym_nonlocal_statement, STATE 11814),
    (sym_exec_statement, STATE 11814), (sym_type_alias_statement, STATE 11814),
    (sym_parameterized_alias_statement, STATE 11814), (sym_class_definition, STATE 925),
    (sym_trait_definition, STATE 925), (sym_decorated_definition, STATE 925),
    (sym_decorator, STATE 3670), (sym_block, STATE 6637), (sym_pattern, STATE 8086),
    (sym_tuple_pattern, STATE 8101), (sym_list_pattern, STATE 8101),
    (sym_list_splat_pattern, STATE 6819), (sym_as_pattern, STATE 7969),
    (sym_expression, STATE 9883), (sym_primary_expression, STATE 7326),
    (sym_comptime_expression, STATE 7017), (sym_transfer_expression, STATE 7017),
    (sym_not_operator, STATE 7969), (sym_boolean_operator, STATE 7969),
    (sym_binary_operator, STATE 7017), (sym_unary_operator, STATE 7017),
    (sym_comparison_operator, STATE 7969), (sym_lambda, STATE 7969),
    (sym_assignment, STATE 12425), (sym_augmented_assignment, STATE 12425),
    (sym_pattern_list, STATE 8578), (sym_yield, STATE 12425), (sym_attribute, STATE 6836),
    (sym_subscript, STATE 6838), (sym_call, STATE 6845), (sym_mlir_type, STATE 7017),
    (sym_list, STATE 7017), (sym_set, STATE 7017), (sym_tuple, STATE 7017),
    (sym_dictionary, STATE 7017), (sym_struct_literal, STATE 7017),
    (sym_list_comprehension, STATE 7017), (sym_dictionary_comprehension, STATE 7017),
    (sym_set_comprehension, STATE 7017), (sym_generator_expression, STATE 7017),
    (sym_parenthesized_expression, STATE 7017), (sym_conditional_expression, STATE 7969),
    (sym_concatenated_string, STATE 7017), (sym_string, STATE 6751), (sym_await, STATE 7017),
    (aux_sym_module_repeat1, STATE 925), (aux_sym_decorated_definition_repeat1, STATE 3670),
    (sym_identifier, ACTIONS 9), (anon_sym_import, ACTIONS 11), (anon_sym_from, ACTIONS 13),
    (anon_sym_LPAREN, ACTIONS 15), (anon_sym_STAR, ACTIONS 17), (anon_sym_print, ACTIONS 19),
    (anon_sym_comptime, ACTIONS 99), (anon_sym_assert, ACTIONS 23),
    (anon_sym___comptime_assert, ACTIONS 25), (anon_sym_return, ACTIONS 27),
    (anon_sym_del, ACTIONS 29), (anon_sym_raise, ACTIONS 31), (anon_sym_pass, ACTIONS 33),
    (anon_sym_break, ACTIONS 35), (anon_sym_continue, ACTIONS 37),
    (anon_sym___extension, ACTIONS 101), (anon_sym___mlir_region, ACTIONS 103),
    (anon_sym_if, ACTIONS 105), (anon_sym_match, ACTIONS 107), (anon_sym_async, ACTIONS 109),
    (anon_sym_for, ACTIONS 111), (anon_sym_while, ACTIONS 113), (anon_sym_try, ACTIONS 115),
    (anon_sym_with, ACTIONS 117), (anon_sym_def, ACTIONS 119), (anon_sym_fn, ACTIONS 119),
    (anon_sym_LBRACK, ACTIONS 59), (anon_sym_LBRACE, ACTIONS 61), (anon_sym_global, ACTIONS 63),
    (anon_sym_nonlocal, ACTIONS 65), (anon_sym_exec, ACTIONS 67), (anon_sym_type, ACTIONS 69),
    (anon_sym_class, ACTIONS 121), (anon_sym_struct, ACTIONS 121), (anon_sym_mut, ACTIONS 73),
    (anon_sym_out, ACTIONS 73), (anon_sym_trait, ACTIONS 123), (anon_sym_AT, ACTIONS 77),
    (anon_sym_DASH, ACTIONS 79), (anon_sym_PLUS, ACTIONS 79), (anon_sym_ref, ACTIONS 81),
    (anon_sym_var, ACTIONS 81), (anon_sym_not, ACTIONS 83), (anon_sym_TILDE, ACTIONS 79),
    (anon_sym_lambda, ACTIONS 85), (anon_sym_yield, ACTIONS 87), (sym_ellipsis, ACTIONS 89),
    (anon_sym___mlir_type, ACTIONS 91), (sym_integer, ACTIONS 93), (sym_float, ACTIONS 89),
    (anon_sym_await, ACTIONS 95), (sym_true, ACTIONS 93), (sym_false, ACTIONS 93),
    (sym_none, ACTIONS 93), (sym_comment, ACTIONS 3), (sym_line_continuation, ACTIONS 3),
    (sym__dedent, ACTIONS 129), (sym_string_start, ACTIONS 97)]"

definition parse_table_415 :: "(nat \<times> nat) list" where "parse_table_415 = [
    (sym__statement, STATE 925), (sym__simple_statements, STATE 925),
    (sym_import_statement, STATE 11814), (sym_future_import_statement, STATE 11814),
    (sym_import_from_statement, STATE 11814), (sym_print_statement, STATE 11814),
    (sym_assert_statement, STATE 11814), (sym_comptime_assert_statement, STATE 11814),
    (sym_expression_statement, STATE 11814), (sym_tuple_expression, STATE 12425),
    (sym_named_expression, STATE 7969), (sym__named_expression_lhs, STATE 12752),
    (sym_return_statement, STATE 11814), (sym_delete_statement, STATE 11814),
    (sym_raise_statement, STATE 11814), (sym_pass_statement, STATE 11814),
    (sym_break_statement, STATE 11814), (sym_continue_statement, STATE 11814),
    (sym_extension_definition, STATE 925), (sym_mlir_region, STATE 925),
    (sym_comptime_statement, STATE 925), (sym_if_statement, STATE 925),
    (sym_match_statement, STATE 925), (sym_for_statement, STATE 925),
    (sym_while_statement, STATE 925), (sym_try_statement, STATE 925),
    (sym_with_statement, STATE 925), (sym_function_definition, STATE 925),
    (sym_global_statement, STATE 11814), (sym_nonlocal_statement, STATE 11814),
    (sym_exec_statement, STATE 11814), (sym_type_alias_statement, STATE 11814),
    (sym_parameterized_alias_statement, STATE 11814), (sym_class_definition, STATE 925),
    (sym_trait_definition, STATE 925), (sym_decorated_definition, STATE 925),
    (sym_decorator, STATE 3670), (sym_block, STATE 6642), (sym_pattern, STATE 8086),
    (sym_tuple_pattern, STATE 8101), (sym_list_pattern, STATE 8101),
    (sym_list_splat_pattern, STATE 6819), (sym_as_pattern, STATE 7969),
    (sym_expression, STATE 9883), (sym_primary_expression, STATE 7326),
    (sym_comptime_expression, STATE 7017), (sym_transfer_expression, STATE 7017),
    (sym_not_operator, STATE 7969), (sym_boolean_operator, STATE 7969),
    (sym_binary_operator, STATE 7017), (sym_unary_operator, STATE 7017),
    (sym_comparison_operator, STATE 7969), (sym_lambda, STATE 7969),
    (sym_assignment, STATE 12425), (sym_augmented_assignment, STATE 12425),
    (sym_pattern_list, STATE 8578), (sym_yield, STATE 12425), (sym_attribute, STATE 6836),
    (sym_subscript, STATE 6838), (sym_call, STATE 6845), (sym_mlir_type, STATE 7017),
    (sym_list, STATE 7017), (sym_set, STATE 7017), (sym_tuple, STATE 7017),
    (sym_dictionary, STATE 7017), (sym_struct_literal, STATE 7017),
    (sym_list_comprehension, STATE 7017), (sym_dictionary_comprehension, STATE 7017),
    (sym_set_comprehension, STATE 7017), (sym_generator_expression, STATE 7017),
    (sym_parenthesized_expression, STATE 7017), (sym_conditional_expression, STATE 7969),
    (sym_concatenated_string, STATE 7017), (sym_string, STATE 6751), (sym_await, STATE 7017),
    (aux_sym_module_repeat1, STATE 925), (aux_sym_decorated_definition_repeat1, STATE 3670),
    (sym_identifier, ACTIONS 9), (anon_sym_import, ACTIONS 11), (anon_sym_from, ACTIONS 13),
    (anon_sym_LPAREN, ACTIONS 15), (anon_sym_STAR, ACTIONS 17), (anon_sym_print, ACTIONS 19),
    (anon_sym_comptime, ACTIONS 99), (anon_sym_assert, ACTIONS 23),
    (anon_sym___comptime_assert, ACTIONS 25), (anon_sym_return, ACTIONS 27),
    (anon_sym_del, ACTIONS 29), (anon_sym_raise, ACTIONS 31), (anon_sym_pass, ACTIONS 33),
    (anon_sym_break, ACTIONS 35), (anon_sym_continue, ACTIONS 37),
    (anon_sym___extension, ACTIONS 101), (anon_sym___mlir_region, ACTIONS 103),
    (anon_sym_if, ACTIONS 105), (anon_sym_match, ACTIONS 107), (anon_sym_async, ACTIONS 109),
    (anon_sym_for, ACTIONS 111), (anon_sym_while, ACTIONS 113), (anon_sym_try, ACTIONS 115),
    (anon_sym_with, ACTIONS 117), (anon_sym_def, ACTIONS 119), (anon_sym_fn, ACTIONS 119),
    (anon_sym_LBRACK, ACTIONS 59), (anon_sym_LBRACE, ACTIONS 61), (anon_sym_global, ACTIONS 63),
    (anon_sym_nonlocal, ACTIONS 65), (anon_sym_exec, ACTIONS 67), (anon_sym_type, ACTIONS 69),
    (anon_sym_class, ACTIONS 121), (anon_sym_struct, ACTIONS 121), (anon_sym_mut, ACTIONS 73),
    (anon_sym_out, ACTIONS 73), (anon_sym_trait, ACTIONS 123), (anon_sym_AT, ACTIONS 77),
    (anon_sym_DASH, ACTIONS 79), (anon_sym_PLUS, ACTIONS 79), (anon_sym_ref, ACTIONS 81),
    (anon_sym_var, ACTIONS 81), (anon_sym_not, ACTIONS 83), (anon_sym_TILDE, ACTIONS 79),
    (anon_sym_lambda, ACTIONS 85), (anon_sym_yield, ACTIONS 87), (sym_ellipsis, ACTIONS 89),
    (anon_sym___mlir_type, ACTIONS 91), (sym_integer, ACTIONS 93), (sym_float, ACTIONS 89),
    (anon_sym_await, ACTIONS 95), (sym_true, ACTIONS 93), (sym_false, ACTIONS 93),
    (sym_none, ACTIONS 93), (sym_comment, ACTIONS 3), (sym_line_continuation, ACTIONS 3),
    (sym__dedent, ACTIONS 129), (sym_string_start, ACTIONS 97)]"

definition parse_table_416 :: "(nat \<times> nat) list" where "parse_table_416 = [
    (sym__statement, STATE 925), (sym__simple_statements, STATE 925),
    (sym_import_statement, STATE 11814), (sym_future_import_statement, STATE 11814),
    (sym_import_from_statement, STATE 11814), (sym_print_statement, STATE 11814),
    (sym_assert_statement, STATE 11814), (sym_comptime_assert_statement, STATE 11814),
    (sym_expression_statement, STATE 11814), (sym_tuple_expression, STATE 12425),
    (sym_named_expression, STATE 7969), (sym__named_expression_lhs, STATE 12752),
    (sym_return_statement, STATE 11814), (sym_delete_statement, STATE 11814),
    (sym_raise_statement, STATE 11814), (sym_pass_statement, STATE 11814),
    (sym_break_statement, STATE 11814), (sym_continue_statement, STATE 11814),
    (sym_extension_definition, STATE 925), (sym_mlir_region, STATE 925),
    (sym_comptime_statement, STATE 925), (sym_if_statement, STATE 925),
    (sym_match_statement, STATE 925), (sym_for_statement, STATE 925),
    (sym_while_statement, STATE 925), (sym_try_statement, STATE 925),
    (sym_with_statement, STATE 925), (sym_function_definition, STATE 925),
    (sym_global_statement, STATE 11814), (sym_nonlocal_statement, STATE 11814),
    (sym_exec_statement, STATE 11814), (sym_type_alias_statement, STATE 11814),
    (sym_parameterized_alias_statement, STATE 11814), (sym_class_definition, STATE 925),
    (sym_trait_definition, STATE 925), (sym_decorated_definition, STATE 925),
    (sym_decorator, STATE 3670), (sym_block, STATE 6646), (sym_pattern, STATE 8086),
    (sym_tuple_pattern, STATE 8101), (sym_list_pattern, STATE 8101),
    (sym_list_splat_pattern, STATE 6819), (sym_as_pattern, STATE 7969),
    (sym_expression, STATE 9883), (sym_primary_expression, STATE 7326),
    (sym_comptime_expression, STATE 7017), (sym_transfer_expression, STATE 7017),
    (sym_not_operator, STATE 7969), (sym_boolean_operator, STATE 7969),
    (sym_binary_operator, STATE 7017), (sym_unary_operator, STATE 7017),
    (sym_comparison_operator, STATE 7969), (sym_lambda, STATE 7969),
    (sym_assignment, STATE 12425), (sym_augmented_assignment, STATE 12425),
    (sym_pattern_list, STATE 8578), (sym_yield, STATE 12425), (sym_attribute, STATE 6836),
    (sym_subscript, STATE 6838), (sym_call, STATE 6845), (sym_mlir_type, STATE 7017),
    (sym_list, STATE 7017), (sym_set, STATE 7017), (sym_tuple, STATE 7017),
    (sym_dictionary, STATE 7017), (sym_struct_literal, STATE 7017),
    (sym_list_comprehension, STATE 7017), (sym_dictionary_comprehension, STATE 7017),
    (sym_set_comprehension, STATE 7017), (sym_generator_expression, STATE 7017),
    (sym_parenthesized_expression, STATE 7017), (sym_conditional_expression, STATE 7969),
    (sym_concatenated_string, STATE 7017), (sym_string, STATE 6751), (sym_await, STATE 7017),
    (aux_sym_module_repeat1, STATE 925), (aux_sym_decorated_definition_repeat1, STATE 3670),
    (sym_identifier, ACTIONS 9), (anon_sym_import, ACTIONS 11), (anon_sym_from, ACTIONS 13),
    (anon_sym_LPAREN, ACTIONS 15), (anon_sym_STAR, ACTIONS 17), (anon_sym_print, ACTIONS 19),
    (anon_sym_comptime, ACTIONS 99), (anon_sym_assert, ACTIONS 23),
    (anon_sym___comptime_assert, ACTIONS 25), (anon_sym_return, ACTIONS 27),
    (anon_sym_del, ACTIONS 29), (anon_sym_raise, ACTIONS 31), (anon_sym_pass, ACTIONS 33),
    (anon_sym_break, ACTIONS 35), (anon_sym_continue, ACTIONS 37),
    (anon_sym___extension, ACTIONS 101), (anon_sym___mlir_region, ACTIONS 103),
    (anon_sym_if, ACTIONS 105), (anon_sym_match, ACTIONS 107), (anon_sym_async, ACTIONS 109),
    (anon_sym_for, ACTIONS 111), (anon_sym_while, ACTIONS 113), (anon_sym_try, ACTIONS 115),
    (anon_sym_with, ACTIONS 117), (anon_sym_def, ACTIONS 119), (anon_sym_fn, ACTIONS 119),
    (anon_sym_LBRACK, ACTIONS 59), (anon_sym_LBRACE, ACTIONS 61), (anon_sym_global, ACTIONS 63),
    (anon_sym_nonlocal, ACTIONS 65), (anon_sym_exec, ACTIONS 67), (anon_sym_type, ACTIONS 69),
    (anon_sym_class, ACTIONS 121), (anon_sym_struct, ACTIONS 121), (anon_sym_mut, ACTIONS 73),
    (anon_sym_out, ACTIONS 73), (anon_sym_trait, ACTIONS 123), (anon_sym_AT, ACTIONS 77),
    (anon_sym_DASH, ACTIONS 79), (anon_sym_PLUS, ACTIONS 79), (anon_sym_ref, ACTIONS 81),
    (anon_sym_var, ACTIONS 81), (anon_sym_not, ACTIONS 83), (anon_sym_TILDE, ACTIONS 79),
    (anon_sym_lambda, ACTIONS 85), (anon_sym_yield, ACTIONS 87), (sym_ellipsis, ACTIONS 89),
    (anon_sym___mlir_type, ACTIONS 91), (sym_integer, ACTIONS 93), (sym_float, ACTIONS 89),
    (anon_sym_await, ACTIONS 95), (sym_true, ACTIONS 93), (sym_false, ACTIONS 93),
    (sym_none, ACTIONS 93), (sym_comment, ACTIONS 3), (sym_line_continuation, ACTIONS 3),
    (sym__dedent, ACTIONS 129), (sym_string_start, ACTIONS 97)]"

definition parse_table_417 :: "(nat \<times> nat) list" where "parse_table_417 = [
    (sym__statement, STATE 925), (sym__simple_statements, STATE 925),
    (sym_import_statement, STATE 11814), (sym_future_import_statement, STATE 11814),
    (sym_import_from_statement, STATE 11814), (sym_print_statement, STATE 11814),
    (sym_assert_statement, STATE 11814), (sym_comptime_assert_statement, STATE 11814),
    (sym_expression_statement, STATE 11814), (sym_tuple_expression, STATE 12425),
    (sym_named_expression, STATE 7969), (sym__named_expression_lhs, STATE 12752),
    (sym_return_statement, STATE 11814), (sym_delete_statement, STATE 11814),
    (sym_raise_statement, STATE 11814), (sym_pass_statement, STATE 11814),
    (sym_break_statement, STATE 11814), (sym_continue_statement, STATE 11814),
    (sym_extension_definition, STATE 925), (sym_mlir_region, STATE 925),
    (sym_comptime_statement, STATE 925), (sym_if_statement, STATE 925),
    (sym_match_statement, STATE 925), (sym_for_statement, STATE 925),
    (sym_while_statement, STATE 925), (sym_try_statement, STATE 925),
    (sym_with_statement, STATE 925), (sym_function_definition, STATE 925),
    (sym_global_statement, STATE 11814), (sym_nonlocal_statement, STATE 11814),
    (sym_exec_statement, STATE 11814), (sym_type_alias_statement, STATE 11814),
    (sym_parameterized_alias_statement, STATE 11814), (sym_class_definition, STATE 925),
    (sym_trait_definition, STATE 925), (sym_decorated_definition, STATE 925),
    (sym_decorator, STATE 3670), (sym_block, STATE 6656), (sym_pattern, STATE 8086),
    (sym_tuple_pattern, STATE 8101), (sym_list_pattern, STATE 8101),
    (sym_list_splat_pattern, STATE 6819), (sym_as_pattern, STATE 7969),
    (sym_expression, STATE 9883), (sym_primary_expression, STATE 7326),
    (sym_comptime_expression, STATE 7017), (sym_transfer_expression, STATE 7017),
    (sym_not_operator, STATE 7969), (sym_boolean_operator, STATE 7969),
    (sym_binary_operator, STATE 7017), (sym_unary_operator, STATE 7017),
    (sym_comparison_operator, STATE 7969), (sym_lambda, STATE 7969),
    (sym_assignment, STATE 12425), (sym_augmented_assignment, STATE 12425),
    (sym_pattern_list, STATE 8578), (sym_yield, STATE 12425), (sym_attribute, STATE 6836),
    (sym_subscript, STATE 6838), (sym_call, STATE 6845), (sym_mlir_type, STATE 7017),
    (sym_list, STATE 7017), (sym_set, STATE 7017), (sym_tuple, STATE 7017),
    (sym_dictionary, STATE 7017), (sym_struct_literal, STATE 7017),
    (sym_list_comprehension, STATE 7017), (sym_dictionary_comprehension, STATE 7017),
    (sym_set_comprehension, STATE 7017), (sym_generator_expression, STATE 7017),
    (sym_parenthesized_expression, STATE 7017), (sym_conditional_expression, STATE 7969),
    (sym_concatenated_string, STATE 7017), (sym_string, STATE 6751), (sym_await, STATE 7017),
    (aux_sym_module_repeat1, STATE 925), (aux_sym_decorated_definition_repeat1, STATE 3670),
    (sym_identifier, ACTIONS 9), (anon_sym_import, ACTIONS 11), (anon_sym_from, ACTIONS 13),
    (anon_sym_LPAREN, ACTIONS 15), (anon_sym_STAR, ACTIONS 17), (anon_sym_print, ACTIONS 19),
    (anon_sym_comptime, ACTIONS 99), (anon_sym_assert, ACTIONS 23),
    (anon_sym___comptime_assert, ACTIONS 25), (anon_sym_return, ACTIONS 27),
    (anon_sym_del, ACTIONS 29), (anon_sym_raise, ACTIONS 31), (anon_sym_pass, ACTIONS 33),
    (anon_sym_break, ACTIONS 35), (anon_sym_continue, ACTIONS 37),
    (anon_sym___extension, ACTIONS 101), (anon_sym___mlir_region, ACTIONS 103),
    (anon_sym_if, ACTIONS 105), (anon_sym_match, ACTIONS 107), (anon_sym_async, ACTIONS 109),
    (anon_sym_for, ACTIONS 111), (anon_sym_while, ACTIONS 113), (anon_sym_try, ACTIONS 115),
    (anon_sym_with, ACTIONS 117), (anon_sym_def, ACTIONS 119), (anon_sym_fn, ACTIONS 119),
    (anon_sym_LBRACK, ACTIONS 59), (anon_sym_LBRACE, ACTIONS 61), (anon_sym_global, ACTIONS 63),
    (anon_sym_nonlocal, ACTIONS 65), (anon_sym_exec, ACTIONS 67), (anon_sym_type, ACTIONS 69),
    (anon_sym_class, ACTIONS 121), (anon_sym_struct, ACTIONS 121), (anon_sym_mut, ACTIONS 73),
    (anon_sym_out, ACTIONS 73), (anon_sym_trait, ACTIONS 123), (anon_sym_AT, ACTIONS 77),
    (anon_sym_DASH, ACTIONS 79), (anon_sym_PLUS, ACTIONS 79), (anon_sym_ref, ACTIONS 81),
    (anon_sym_var, ACTIONS 81), (anon_sym_not, ACTIONS 83), (anon_sym_TILDE, ACTIONS 79),
    (anon_sym_lambda, ACTIONS 85), (anon_sym_yield, ACTIONS 87), (sym_ellipsis, ACTIONS 89),
    (anon_sym___mlir_type, ACTIONS 91), (sym_integer, ACTIONS 93), (sym_float, ACTIONS 89),
    (anon_sym_await, ACTIONS 95), (sym_true, ACTIONS 93), (sym_false, ACTIONS 93),
    (sym_none, ACTIONS 93), (sym_comment, ACTIONS 3), (sym_line_continuation, ACTIONS 3),
    (sym__dedent, ACTIONS 129), (sym_string_start, ACTIONS 97)]"

definition parse_table_418 :: "(nat \<times> nat) list" where "parse_table_418 = [
    (sym__statement, STATE 925), (sym__simple_statements, STATE 925),
    (sym_import_statement, STATE 11814), (sym_future_import_statement, STATE 11814),
    (sym_import_from_statement, STATE 11814), (sym_print_statement, STATE 11814),
    (sym_assert_statement, STATE 11814), (sym_comptime_assert_statement, STATE 11814),
    (sym_expression_statement, STATE 11814), (sym_tuple_expression, STATE 12425),
    (sym_named_expression, STATE 7969), (sym__named_expression_lhs, STATE 12752),
    (sym_return_statement, STATE 11814), (sym_delete_statement, STATE 11814),
    (sym_raise_statement, STATE 11814), (sym_pass_statement, STATE 11814),
    (sym_break_statement, STATE 11814), (sym_continue_statement, STATE 11814),
    (sym_extension_definition, STATE 925), (sym_mlir_region, STATE 925),
    (sym_comptime_statement, STATE 925), (sym_if_statement, STATE 925),
    (sym_match_statement, STATE 925), (sym_for_statement, STATE 925),
    (sym_while_statement, STATE 925), (sym_try_statement, STATE 925),
    (sym_with_statement, STATE 925), (sym_function_definition, STATE 925),
    (sym_global_statement, STATE 11814), (sym_nonlocal_statement, STATE 11814),
    (sym_exec_statement, STATE 11814), (sym_type_alias_statement, STATE 11814),
    (sym_parameterized_alias_statement, STATE 11814), (sym_class_definition, STATE 925),
    (sym_trait_definition, STATE 925), (sym_decorated_definition, STATE 925),
    (sym_decorator, STATE 3670), (sym_block, STATE 6660), (sym_pattern, STATE 8086),
    (sym_tuple_pattern, STATE 8101), (sym_list_pattern, STATE 8101),
    (sym_list_splat_pattern, STATE 6819), (sym_as_pattern, STATE 7969),
    (sym_expression, STATE 9883), (sym_primary_expression, STATE 7326),
    (sym_comptime_expression, STATE 7017), (sym_transfer_expression, STATE 7017),
    (sym_not_operator, STATE 7969), (sym_boolean_operator, STATE 7969),
    (sym_binary_operator, STATE 7017), (sym_unary_operator, STATE 7017),
    (sym_comparison_operator, STATE 7969), (sym_lambda, STATE 7969),
    (sym_assignment, STATE 12425), (sym_augmented_assignment, STATE 12425),
    (sym_pattern_list, STATE 8578), (sym_yield, STATE 12425), (sym_attribute, STATE 6836),
    (sym_subscript, STATE 6838), (sym_call, STATE 6845), (sym_mlir_type, STATE 7017),
    (sym_list, STATE 7017), (sym_set, STATE 7017), (sym_tuple, STATE 7017),
    (sym_dictionary, STATE 7017), (sym_struct_literal, STATE 7017),
    (sym_list_comprehension, STATE 7017), (sym_dictionary_comprehension, STATE 7017),
    (sym_set_comprehension, STATE 7017), (sym_generator_expression, STATE 7017),
    (sym_parenthesized_expression, STATE 7017), (sym_conditional_expression, STATE 7969),
    (sym_concatenated_string, STATE 7017), (sym_string, STATE 6751), (sym_await, STATE 7017),
    (aux_sym_module_repeat1, STATE 925), (aux_sym_decorated_definition_repeat1, STATE 3670),
    (sym_identifier, ACTIONS 9), (anon_sym_import, ACTIONS 11), (anon_sym_from, ACTIONS 13),
    (anon_sym_LPAREN, ACTIONS 15), (anon_sym_STAR, ACTIONS 17), (anon_sym_print, ACTIONS 19),
    (anon_sym_comptime, ACTIONS 99), (anon_sym_assert, ACTIONS 23),
    (anon_sym___comptime_assert, ACTIONS 25), (anon_sym_return, ACTIONS 27),
    (anon_sym_del, ACTIONS 29), (anon_sym_raise, ACTIONS 31), (anon_sym_pass, ACTIONS 33),
    (anon_sym_break, ACTIONS 35), (anon_sym_continue, ACTIONS 37),
    (anon_sym___extension, ACTIONS 101), (anon_sym___mlir_region, ACTIONS 103),
    (anon_sym_if, ACTIONS 105), (anon_sym_match, ACTIONS 107), (anon_sym_async, ACTIONS 109),
    (anon_sym_for, ACTIONS 111), (anon_sym_while, ACTIONS 113), (anon_sym_try, ACTIONS 115),
    (anon_sym_with, ACTIONS 117), (anon_sym_def, ACTIONS 119), (anon_sym_fn, ACTIONS 119),
    (anon_sym_LBRACK, ACTIONS 59), (anon_sym_LBRACE, ACTIONS 61), (anon_sym_global, ACTIONS 63),
    (anon_sym_nonlocal, ACTIONS 65), (anon_sym_exec, ACTIONS 67), (anon_sym_type, ACTIONS 69),
    (anon_sym_class, ACTIONS 121), (anon_sym_struct, ACTIONS 121), (anon_sym_mut, ACTIONS 73),
    (anon_sym_out, ACTIONS 73), (anon_sym_trait, ACTIONS 123), (anon_sym_AT, ACTIONS 77),
    (anon_sym_DASH, ACTIONS 79), (anon_sym_PLUS, ACTIONS 79), (anon_sym_ref, ACTIONS 81),
    (anon_sym_var, ACTIONS 81), (anon_sym_not, ACTIONS 83), (anon_sym_TILDE, ACTIONS 79),
    (anon_sym_lambda, ACTIONS 85), (anon_sym_yield, ACTIONS 87), (sym_ellipsis, ACTIONS 89),
    (anon_sym___mlir_type, ACTIONS 91), (sym_integer, ACTIONS 93), (sym_float, ACTIONS 89),
    (anon_sym_await, ACTIONS 95), (sym_true, ACTIONS 93), (sym_false, ACTIONS 93),
    (sym_none, ACTIONS 93), (sym_comment, ACTIONS 3), (sym_line_continuation, ACTIONS 3),
    (sym__dedent, ACTIONS 129), (sym_string_start, ACTIONS 97)]"

definition parse_table_419 :: "(nat \<times> nat) list" where "parse_table_419 = [
    (sym__statement, STATE 925), (sym__simple_statements, STATE 925),
    (sym_import_statement, STATE 11814), (sym_future_import_statement, STATE 11814),
    (sym_import_from_statement, STATE 11814), (sym_print_statement, STATE 11814),
    (sym_assert_statement, STATE 11814), (sym_comptime_assert_statement, STATE 11814),
    (sym_expression_statement, STATE 11814), (sym_tuple_expression, STATE 12425),
    (sym_named_expression, STATE 7969), (sym__named_expression_lhs, STATE 12752),
    (sym_return_statement, STATE 11814), (sym_delete_statement, STATE 11814),
    (sym_raise_statement, STATE 11814), (sym_pass_statement, STATE 11814),
    (sym_break_statement, STATE 11814), (sym_continue_statement, STATE 11814),
    (sym_extension_definition, STATE 925), (sym_mlir_region, STATE 925),
    (sym_comptime_statement, STATE 925), (sym_if_statement, STATE 925),
    (sym_match_statement, STATE 925), (sym_for_statement, STATE 925),
    (sym_while_statement, STATE 925), (sym_try_statement, STATE 925),
    (sym_with_statement, STATE 925), (sym_function_definition, STATE 925),
    (sym_global_statement, STATE 11814), (sym_nonlocal_statement, STATE 11814),
    (sym_exec_statement, STATE 11814), (sym_type_alias_statement, STATE 11814),
    (sym_parameterized_alias_statement, STATE 11814), (sym_class_definition, STATE 925),
    (sym_trait_definition, STATE 925), (sym_decorated_definition, STATE 925),
    (sym_decorator, STATE 3670), (sym_block, STATE 6663), (sym_pattern, STATE 8086),
    (sym_tuple_pattern, STATE 8101), (sym_list_pattern, STATE 8101),
    (sym_list_splat_pattern, STATE 6819), (sym_as_pattern, STATE 7969),
    (sym_expression, STATE 9883), (sym_primary_expression, STATE 7326),
    (sym_comptime_expression, STATE 7017), (sym_transfer_expression, STATE 7017),
    (sym_not_operator, STATE 7969), (sym_boolean_operator, STATE 7969),
    (sym_binary_operator, STATE 7017), (sym_unary_operator, STATE 7017),
    (sym_comparison_operator, STATE 7969), (sym_lambda, STATE 7969),
    (sym_assignment, STATE 12425), (sym_augmented_assignment, STATE 12425),
    (sym_pattern_list, STATE 8578), (sym_yield, STATE 12425), (sym_attribute, STATE 6836),
    (sym_subscript, STATE 6838), (sym_call, STATE 6845), (sym_mlir_type, STATE 7017),
    (sym_list, STATE 7017), (sym_set, STATE 7017), (sym_tuple, STATE 7017),
    (sym_dictionary, STATE 7017), (sym_struct_literal, STATE 7017),
    (sym_list_comprehension, STATE 7017), (sym_dictionary_comprehension, STATE 7017),
    (sym_set_comprehension, STATE 7017), (sym_generator_expression, STATE 7017),
    (sym_parenthesized_expression, STATE 7017), (sym_conditional_expression, STATE 7969),
    (sym_concatenated_string, STATE 7017), (sym_string, STATE 6751), (sym_await, STATE 7017),
    (aux_sym_module_repeat1, STATE 925), (aux_sym_decorated_definition_repeat1, STATE 3670),
    (sym_identifier, ACTIONS 9), (anon_sym_import, ACTIONS 11), (anon_sym_from, ACTIONS 13),
    (anon_sym_LPAREN, ACTIONS 15), (anon_sym_STAR, ACTIONS 17), (anon_sym_print, ACTIONS 19),
    (anon_sym_comptime, ACTIONS 99), (anon_sym_assert, ACTIONS 23),
    (anon_sym___comptime_assert, ACTIONS 25), (anon_sym_return, ACTIONS 27),
    (anon_sym_del, ACTIONS 29), (anon_sym_raise, ACTIONS 31), (anon_sym_pass, ACTIONS 33),
    (anon_sym_break, ACTIONS 35), (anon_sym_continue, ACTIONS 37),
    (anon_sym___extension, ACTIONS 101), (anon_sym___mlir_region, ACTIONS 103),
    (anon_sym_if, ACTIONS 105), (anon_sym_match, ACTIONS 107), (anon_sym_async, ACTIONS 109),
    (anon_sym_for, ACTIONS 111), (anon_sym_while, ACTIONS 113), (anon_sym_try, ACTIONS 115),
    (anon_sym_with, ACTIONS 117), (anon_sym_def, ACTIONS 119), (anon_sym_fn, ACTIONS 119),
    (anon_sym_LBRACK, ACTIONS 59), (anon_sym_LBRACE, ACTIONS 61), (anon_sym_global, ACTIONS 63),
    (anon_sym_nonlocal, ACTIONS 65), (anon_sym_exec, ACTIONS 67), (anon_sym_type, ACTIONS 69),
    (anon_sym_class, ACTIONS 121), (anon_sym_struct, ACTIONS 121), (anon_sym_mut, ACTIONS 73),
    (anon_sym_out, ACTIONS 73), (anon_sym_trait, ACTIONS 123), (anon_sym_AT, ACTIONS 77),
    (anon_sym_DASH, ACTIONS 79), (anon_sym_PLUS, ACTIONS 79), (anon_sym_ref, ACTIONS 81),
    (anon_sym_var, ACTIONS 81), (anon_sym_not, ACTIONS 83), (anon_sym_TILDE, ACTIONS 79),
    (anon_sym_lambda, ACTIONS 85), (anon_sym_yield, ACTIONS 87), (sym_ellipsis, ACTIONS 89),
    (anon_sym___mlir_type, ACTIONS 91), (sym_integer, ACTIONS 93), (sym_float, ACTIONS 89),
    (anon_sym_await, ACTIONS 95), (sym_true, ACTIONS 93), (sym_false, ACTIONS 93),
    (sym_none, ACTIONS 93), (sym_comment, ACTIONS 3), (sym_line_continuation, ACTIONS 3),
    (sym__dedent, ACTIONS 129), (sym_string_start, ACTIONS 97)]"

definition parse_table_420 :: "(nat \<times> nat) list" where "parse_table_420 = [
    (sym__statement, STATE 925), (sym__simple_statements, STATE 925),
    (sym_import_statement, STATE 11814), (sym_future_import_statement, STATE 11814),
    (sym_import_from_statement, STATE 11814), (sym_print_statement, STATE 11814),
    (sym_assert_statement, STATE 11814), (sym_comptime_assert_statement, STATE 11814),
    (sym_expression_statement, STATE 11814), (sym_tuple_expression, STATE 12425),
    (sym_named_expression, STATE 7969), (sym__named_expression_lhs, STATE 12752),
    (sym_return_statement, STATE 11814), (sym_delete_statement, STATE 11814),
    (sym_raise_statement, STATE 11814), (sym_pass_statement, STATE 11814),
    (sym_break_statement, STATE 11814), (sym_continue_statement, STATE 11814),
    (sym_extension_definition, STATE 925), (sym_mlir_region, STATE 925),
    (sym_comptime_statement, STATE 925), (sym_if_statement, STATE 925),
    (sym_match_statement, STATE 925), (sym_for_statement, STATE 925),
    (sym_while_statement, STATE 925), (sym_try_statement, STATE 925),
    (sym_with_statement, STATE 925), (sym_function_definition, STATE 925),
    (sym_global_statement, STATE 11814), (sym_nonlocal_statement, STATE 11814),
    (sym_exec_statement, STATE 11814), (sym_type_alias_statement, STATE 11814),
    (sym_parameterized_alias_statement, STATE 11814), (sym_class_definition, STATE 925),
    (sym_trait_definition, STATE 925), (sym_decorated_definition, STATE 925),
    (sym_decorator, STATE 3670), (sym_block, STATE 6664), (sym_pattern, STATE 8086),
    (sym_tuple_pattern, STATE 8101), (sym_list_pattern, STATE 8101),
    (sym_list_splat_pattern, STATE 6819), (sym_as_pattern, STATE 7969),
    (sym_expression, STATE 9883), (sym_primary_expression, STATE 7326),
    (sym_comptime_expression, STATE 7017), (sym_transfer_expression, STATE 7017),
    (sym_not_operator, STATE 7969), (sym_boolean_operator, STATE 7969),
    (sym_binary_operator, STATE 7017), (sym_unary_operator, STATE 7017),
    (sym_comparison_operator, STATE 7969), (sym_lambda, STATE 7969),
    (sym_assignment, STATE 12425), (sym_augmented_assignment, STATE 12425),
    (sym_pattern_list, STATE 8578), (sym_yield, STATE 12425), (sym_attribute, STATE 6836),
    (sym_subscript, STATE 6838), (sym_call, STATE 6845), (sym_mlir_type, STATE 7017),
    (sym_list, STATE 7017), (sym_set, STATE 7017), (sym_tuple, STATE 7017),
    (sym_dictionary, STATE 7017), (sym_struct_literal, STATE 7017),
    (sym_list_comprehension, STATE 7017), (sym_dictionary_comprehension, STATE 7017),
    (sym_set_comprehension, STATE 7017), (sym_generator_expression, STATE 7017),
    (sym_parenthesized_expression, STATE 7017), (sym_conditional_expression, STATE 7969),
    (sym_concatenated_string, STATE 7017), (sym_string, STATE 6751), (sym_await, STATE 7017),
    (aux_sym_module_repeat1, STATE 925), (aux_sym_decorated_definition_repeat1, STATE 3670),
    (sym_identifier, ACTIONS 9), (anon_sym_import, ACTIONS 11), (anon_sym_from, ACTIONS 13),
    (anon_sym_LPAREN, ACTIONS 15), (anon_sym_STAR, ACTIONS 17), (anon_sym_print, ACTIONS 19),
    (anon_sym_comptime, ACTIONS 99), (anon_sym_assert, ACTIONS 23),
    (anon_sym___comptime_assert, ACTIONS 25), (anon_sym_return, ACTIONS 27),
    (anon_sym_del, ACTIONS 29), (anon_sym_raise, ACTIONS 31), (anon_sym_pass, ACTIONS 33),
    (anon_sym_break, ACTIONS 35), (anon_sym_continue, ACTIONS 37),
    (anon_sym___extension, ACTIONS 101), (anon_sym___mlir_region, ACTIONS 103),
    (anon_sym_if, ACTIONS 105), (anon_sym_match, ACTIONS 107), (anon_sym_async, ACTIONS 109),
    (anon_sym_for, ACTIONS 111), (anon_sym_while, ACTIONS 113), (anon_sym_try, ACTIONS 115),
    (anon_sym_with, ACTIONS 117), (anon_sym_def, ACTIONS 119), (anon_sym_fn, ACTIONS 119),
    (anon_sym_LBRACK, ACTIONS 59), (anon_sym_LBRACE, ACTIONS 61), (anon_sym_global, ACTIONS 63),
    (anon_sym_nonlocal, ACTIONS 65), (anon_sym_exec, ACTIONS 67), (anon_sym_type, ACTIONS 69),
    (anon_sym_class, ACTIONS 121), (anon_sym_struct, ACTIONS 121), (anon_sym_mut, ACTIONS 73),
    (anon_sym_out, ACTIONS 73), (anon_sym_trait, ACTIONS 123), (anon_sym_AT, ACTIONS 77),
    (anon_sym_DASH, ACTIONS 79), (anon_sym_PLUS, ACTIONS 79), (anon_sym_ref, ACTIONS 81),
    (anon_sym_var, ACTIONS 81), (anon_sym_not, ACTIONS 83), (anon_sym_TILDE, ACTIONS 79),
    (anon_sym_lambda, ACTIONS 85), (anon_sym_yield, ACTIONS 87), (sym_ellipsis, ACTIONS 89),
    (anon_sym___mlir_type, ACTIONS 91), (sym_integer, ACTIONS 93), (sym_float, ACTIONS 89),
    (anon_sym_await, ACTIONS 95), (sym_true, ACTIONS 93), (sym_false, ACTIONS 93),
    (sym_none, ACTIONS 93), (sym_comment, ACTIONS 3), (sym_line_continuation, ACTIONS 3),
    (sym__dedent, ACTIONS 129), (sym_string_start, ACTIONS 97)]"

definition parse_table_421 :: "(nat \<times> nat) list" where "parse_table_421 = [
    (sym__statement, STATE 925), (sym__simple_statements, STATE 925),
    (sym_import_statement, STATE 11814), (sym_future_import_statement, STATE 11814),
    (sym_import_from_statement, STATE 11814), (sym_print_statement, STATE 11814),
    (sym_assert_statement, STATE 11814), (sym_comptime_assert_statement, STATE 11814),
    (sym_expression_statement, STATE 11814), (sym_tuple_expression, STATE 12425),
    (sym_named_expression, STATE 7969), (sym__named_expression_lhs, STATE 12752),
    (sym_return_statement, STATE 11814), (sym_delete_statement, STATE 11814),
    (sym_raise_statement, STATE 11814), (sym_pass_statement, STATE 11814),
    (sym_break_statement, STATE 11814), (sym_continue_statement, STATE 11814),
    (sym_extension_definition, STATE 925), (sym_mlir_region, STATE 925),
    (sym_comptime_statement, STATE 925), (sym_if_statement, STATE 925),
    (sym_match_statement, STATE 925), (sym_for_statement, STATE 925),
    (sym_while_statement, STATE 925), (sym_try_statement, STATE 925),
    (sym_with_statement, STATE 925), (sym_function_definition, STATE 925),
    (sym_global_statement, STATE 11814), (sym_nonlocal_statement, STATE 11814),
    (sym_exec_statement, STATE 11814), (sym_type_alias_statement, STATE 11814),
    (sym_parameterized_alias_statement, STATE 11814), (sym_class_definition, STATE 925),
    (sym_trait_definition, STATE 925), (sym_decorated_definition, STATE 925),
    (sym_decorator, STATE 3670), (sym_block, STATE 6665), (sym_pattern, STATE 8086),
    (sym_tuple_pattern, STATE 8101), (sym_list_pattern, STATE 8101),
    (sym_list_splat_pattern, STATE 6819), (sym_as_pattern, STATE 7969),
    (sym_expression, STATE 9883), (sym_primary_expression, STATE 7326),
    (sym_comptime_expression, STATE 7017), (sym_transfer_expression, STATE 7017),
    (sym_not_operator, STATE 7969), (sym_boolean_operator, STATE 7969),
    (sym_binary_operator, STATE 7017), (sym_unary_operator, STATE 7017),
    (sym_comparison_operator, STATE 7969), (sym_lambda, STATE 7969),
    (sym_assignment, STATE 12425), (sym_augmented_assignment, STATE 12425),
    (sym_pattern_list, STATE 8578), (sym_yield, STATE 12425), (sym_attribute, STATE 6836),
    (sym_subscript, STATE 6838), (sym_call, STATE 6845), (sym_mlir_type, STATE 7017),
    (sym_list, STATE 7017), (sym_set, STATE 7017), (sym_tuple, STATE 7017),
    (sym_dictionary, STATE 7017), (sym_struct_literal, STATE 7017),
    (sym_list_comprehension, STATE 7017), (sym_dictionary_comprehension, STATE 7017),
    (sym_set_comprehension, STATE 7017), (sym_generator_expression, STATE 7017),
    (sym_parenthesized_expression, STATE 7017), (sym_conditional_expression, STATE 7969),
    (sym_concatenated_string, STATE 7017), (sym_string, STATE 6751), (sym_await, STATE 7017),
    (aux_sym_module_repeat1, STATE 925), (aux_sym_decorated_definition_repeat1, STATE 3670),
    (sym_identifier, ACTIONS 9), (anon_sym_import, ACTIONS 11), (anon_sym_from, ACTIONS 13),
    (anon_sym_LPAREN, ACTIONS 15), (anon_sym_STAR, ACTIONS 17), (anon_sym_print, ACTIONS 19),
    (anon_sym_comptime, ACTIONS 99), (anon_sym_assert, ACTIONS 23),
    (anon_sym___comptime_assert, ACTIONS 25), (anon_sym_return, ACTIONS 27),
    (anon_sym_del, ACTIONS 29), (anon_sym_raise, ACTIONS 31), (anon_sym_pass, ACTIONS 33),
    (anon_sym_break, ACTIONS 35), (anon_sym_continue, ACTIONS 37),
    (anon_sym___extension, ACTIONS 101), (anon_sym___mlir_region, ACTIONS 103),
    (anon_sym_if, ACTIONS 105), (anon_sym_match, ACTIONS 107), (anon_sym_async, ACTIONS 109),
    (anon_sym_for, ACTIONS 111), (anon_sym_while, ACTIONS 113), (anon_sym_try, ACTIONS 115),
    (anon_sym_with, ACTIONS 117), (anon_sym_def, ACTIONS 119), (anon_sym_fn, ACTIONS 119),
    (anon_sym_LBRACK, ACTIONS 59), (anon_sym_LBRACE, ACTIONS 61), (anon_sym_global, ACTIONS 63),
    (anon_sym_nonlocal, ACTIONS 65), (anon_sym_exec, ACTIONS 67), (anon_sym_type, ACTIONS 69),
    (anon_sym_class, ACTIONS 121), (anon_sym_struct, ACTIONS 121), (anon_sym_mut, ACTIONS 73),
    (anon_sym_out, ACTIONS 73), (anon_sym_trait, ACTIONS 123), (anon_sym_AT, ACTIONS 77),
    (anon_sym_DASH, ACTIONS 79), (anon_sym_PLUS, ACTIONS 79), (anon_sym_ref, ACTIONS 81),
    (anon_sym_var, ACTIONS 81), (anon_sym_not, ACTIONS 83), (anon_sym_TILDE, ACTIONS 79),
    (anon_sym_lambda, ACTIONS 85), (anon_sym_yield, ACTIONS 87), (sym_ellipsis, ACTIONS 89),
    (anon_sym___mlir_type, ACTIONS 91), (sym_integer, ACTIONS 93), (sym_float, ACTIONS 89),
    (anon_sym_await, ACTIONS 95), (sym_true, ACTIONS 93), (sym_false, ACTIONS 93),
    (sym_none, ACTIONS 93), (sym_comment, ACTIONS 3), (sym_line_continuation, ACTIONS 3),
    (sym__dedent, ACTIONS 129), (sym_string_start, ACTIONS 97)]"

definition parse_table_422 :: "(nat \<times> nat) list" where "parse_table_422 = [
    (sym__statement, STATE 925), (sym__simple_statements, STATE 925),
    (sym_import_statement, STATE 11814), (sym_future_import_statement, STATE 11814),
    (sym_import_from_statement, STATE 11814), (sym_print_statement, STATE 11814),
    (sym_assert_statement, STATE 11814), (sym_comptime_assert_statement, STATE 11814),
    (sym_expression_statement, STATE 11814), (sym_tuple_expression, STATE 12425),
    (sym_named_expression, STATE 7969), (sym__named_expression_lhs, STATE 12752),
    (sym_return_statement, STATE 11814), (sym_delete_statement, STATE 11814),
    (sym_raise_statement, STATE 11814), (sym_pass_statement, STATE 11814),
    (sym_break_statement, STATE 11814), (sym_continue_statement, STATE 11814),
    (sym_extension_definition, STATE 925), (sym_mlir_region, STATE 925),
    (sym_comptime_statement, STATE 925), (sym_if_statement, STATE 925),
    (sym_match_statement, STATE 925), (sym_for_statement, STATE 925),
    (sym_while_statement, STATE 925), (sym_try_statement, STATE 925),
    (sym_with_statement, STATE 925), (sym_function_definition, STATE 925),
    (sym_global_statement, STATE 11814), (sym_nonlocal_statement, STATE 11814),
    (sym_exec_statement, STATE 11814), (sym_type_alias_statement, STATE 11814),
    (sym_parameterized_alias_statement, STATE 11814), (sym_class_definition, STATE 925),
    (sym_trait_definition, STATE 925), (sym_decorated_definition, STATE 925),
    (sym_decorator, STATE 3670), (sym_block, STATE 6680), (sym_pattern, STATE 8086),
    (sym_tuple_pattern, STATE 8101), (sym_list_pattern, STATE 8101),
    (sym_list_splat_pattern, STATE 6819), (sym_as_pattern, STATE 7969),
    (sym_expression, STATE 9883), (sym_primary_expression, STATE 7326),
    (sym_comptime_expression, STATE 7017), (sym_transfer_expression, STATE 7017),
    (sym_not_operator, STATE 7969), (sym_boolean_operator, STATE 7969),
    (sym_binary_operator, STATE 7017), (sym_unary_operator, STATE 7017),
    (sym_comparison_operator, STATE 7969), (sym_lambda, STATE 7969),
    (sym_assignment, STATE 12425), (sym_augmented_assignment, STATE 12425),
    (sym_pattern_list, STATE 8578), (sym_yield, STATE 12425), (sym_attribute, STATE 6836),
    (sym_subscript, STATE 6838), (sym_call, STATE 6845), (sym_mlir_type, STATE 7017),
    (sym_list, STATE 7017), (sym_set, STATE 7017), (sym_tuple, STATE 7017),
    (sym_dictionary, STATE 7017), (sym_struct_literal, STATE 7017),
    (sym_list_comprehension, STATE 7017), (sym_dictionary_comprehension, STATE 7017),
    (sym_set_comprehension, STATE 7017), (sym_generator_expression, STATE 7017),
    (sym_parenthesized_expression, STATE 7017), (sym_conditional_expression, STATE 7969),
    (sym_concatenated_string, STATE 7017), (sym_string, STATE 6751), (sym_await, STATE 7017),
    (aux_sym_module_repeat1, STATE 925), (aux_sym_decorated_definition_repeat1, STATE 3670),
    (sym_identifier, ACTIONS 9), (anon_sym_import, ACTIONS 11), (anon_sym_from, ACTIONS 13),
    (anon_sym_LPAREN, ACTIONS 15), (anon_sym_STAR, ACTIONS 17), (anon_sym_print, ACTIONS 19),
    (anon_sym_comptime, ACTIONS 99), (anon_sym_assert, ACTIONS 23),
    (anon_sym___comptime_assert, ACTIONS 25), (anon_sym_return, ACTIONS 27),
    (anon_sym_del, ACTIONS 29), (anon_sym_raise, ACTIONS 31), (anon_sym_pass, ACTIONS 33),
    (anon_sym_break, ACTIONS 35), (anon_sym_continue, ACTIONS 37),
    (anon_sym___extension, ACTIONS 101), (anon_sym___mlir_region, ACTIONS 103),
    (anon_sym_if, ACTIONS 105), (anon_sym_match, ACTIONS 107), (anon_sym_async, ACTIONS 109),
    (anon_sym_for, ACTIONS 111), (anon_sym_while, ACTIONS 113), (anon_sym_try, ACTIONS 115),
    (anon_sym_with, ACTIONS 117), (anon_sym_def, ACTIONS 119), (anon_sym_fn, ACTIONS 119),
    (anon_sym_LBRACK, ACTIONS 59), (anon_sym_LBRACE, ACTIONS 61), (anon_sym_global, ACTIONS 63),
    (anon_sym_nonlocal, ACTIONS 65), (anon_sym_exec, ACTIONS 67), (anon_sym_type, ACTIONS 69),
    (anon_sym_class, ACTIONS 121), (anon_sym_struct, ACTIONS 121), (anon_sym_mut, ACTIONS 73),
    (anon_sym_out, ACTIONS 73), (anon_sym_trait, ACTIONS 123), (anon_sym_AT, ACTIONS 77),
    (anon_sym_DASH, ACTIONS 79), (anon_sym_PLUS, ACTIONS 79), (anon_sym_ref, ACTIONS 81),
    (anon_sym_var, ACTIONS 81), (anon_sym_not, ACTIONS 83), (anon_sym_TILDE, ACTIONS 79),
    (anon_sym_lambda, ACTIONS 85), (anon_sym_yield, ACTIONS 87), (sym_ellipsis, ACTIONS 89),
    (anon_sym___mlir_type, ACTIONS 91), (sym_integer, ACTIONS 93), (sym_float, ACTIONS 89),
    (anon_sym_await, ACTIONS 95), (sym_true, ACTIONS 93), (sym_false, ACTIONS 93),
    (sym_none, ACTIONS 93), (sym_comment, ACTIONS 3), (sym_line_continuation, ACTIONS 3),
    (sym__dedent, ACTIONS 129), (sym_string_start, ACTIONS 97)]"

definition parse_table_423 :: "(nat \<times> nat) list" where "parse_table_423 = [
    (sym__statement, STATE 925), (sym__simple_statements, STATE 925),
    (sym_import_statement, STATE 11814), (sym_future_import_statement, STATE 11814),
    (sym_import_from_statement, STATE 11814), (sym_print_statement, STATE 11814),
    (sym_assert_statement, STATE 11814), (sym_comptime_assert_statement, STATE 11814),
    (sym_expression_statement, STATE 11814), (sym_tuple_expression, STATE 12425),
    (sym_named_expression, STATE 7969), (sym__named_expression_lhs, STATE 12752),
    (sym_return_statement, STATE 11814), (sym_delete_statement, STATE 11814),
    (sym_raise_statement, STATE 11814), (sym_pass_statement, STATE 11814),
    (sym_break_statement, STATE 11814), (sym_continue_statement, STATE 11814),
    (sym_extension_definition, STATE 925), (sym_mlir_region, STATE 925),
    (sym_comptime_statement, STATE 925), (sym_if_statement, STATE 925),
    (sym_match_statement, STATE 925), (sym_for_statement, STATE 925),
    (sym_while_statement, STATE 925), (sym_try_statement, STATE 925),
    (sym_with_statement, STATE 925), (sym_function_definition, STATE 925),
    (sym_global_statement, STATE 11814), (sym_nonlocal_statement, STATE 11814),
    (sym_exec_statement, STATE 11814), (sym_type_alias_statement, STATE 11814),
    (sym_parameterized_alias_statement, STATE 11814), (sym_class_definition, STATE 925),
    (sym_trait_definition, STATE 925), (sym_decorated_definition, STATE 925),
    (sym_decorator, STATE 3670), (sym_block, STATE 6681), (sym_pattern, STATE 8086),
    (sym_tuple_pattern, STATE 8101), (sym_list_pattern, STATE 8101),
    (sym_list_splat_pattern, STATE 6819), (sym_as_pattern, STATE 7969),
    (sym_expression, STATE 9883), (sym_primary_expression, STATE 7326),
    (sym_comptime_expression, STATE 7017), (sym_transfer_expression, STATE 7017),
    (sym_not_operator, STATE 7969), (sym_boolean_operator, STATE 7969),
    (sym_binary_operator, STATE 7017), (sym_unary_operator, STATE 7017),
    (sym_comparison_operator, STATE 7969), (sym_lambda, STATE 7969),
    (sym_assignment, STATE 12425), (sym_augmented_assignment, STATE 12425),
    (sym_pattern_list, STATE 8578), (sym_yield, STATE 12425), (sym_attribute, STATE 6836),
    (sym_subscript, STATE 6838), (sym_call, STATE 6845), (sym_mlir_type, STATE 7017),
    (sym_list, STATE 7017), (sym_set, STATE 7017), (sym_tuple, STATE 7017),
    (sym_dictionary, STATE 7017), (sym_struct_literal, STATE 7017),
    (sym_list_comprehension, STATE 7017), (sym_dictionary_comprehension, STATE 7017),
    (sym_set_comprehension, STATE 7017), (sym_generator_expression, STATE 7017),
    (sym_parenthesized_expression, STATE 7017), (sym_conditional_expression, STATE 7969),
    (sym_concatenated_string, STATE 7017), (sym_string, STATE 6751), (sym_await, STATE 7017),
    (aux_sym_module_repeat1, STATE 925), (aux_sym_decorated_definition_repeat1, STATE 3670),
    (sym_identifier, ACTIONS 9), (anon_sym_import, ACTIONS 11), (anon_sym_from, ACTIONS 13),
    (anon_sym_LPAREN, ACTIONS 15), (anon_sym_STAR, ACTIONS 17), (anon_sym_print, ACTIONS 19),
    (anon_sym_comptime, ACTIONS 99), (anon_sym_assert, ACTIONS 23),
    (anon_sym___comptime_assert, ACTIONS 25), (anon_sym_return, ACTIONS 27),
    (anon_sym_del, ACTIONS 29), (anon_sym_raise, ACTIONS 31), (anon_sym_pass, ACTIONS 33),
    (anon_sym_break, ACTIONS 35), (anon_sym_continue, ACTIONS 37),
    (anon_sym___extension, ACTIONS 101), (anon_sym___mlir_region, ACTIONS 103),
    (anon_sym_if, ACTIONS 105), (anon_sym_match, ACTIONS 107), (anon_sym_async, ACTIONS 109),
    (anon_sym_for, ACTIONS 111), (anon_sym_while, ACTIONS 113), (anon_sym_try, ACTIONS 115),
    (anon_sym_with, ACTIONS 117), (anon_sym_def, ACTIONS 119), (anon_sym_fn, ACTIONS 119),
    (anon_sym_LBRACK, ACTIONS 59), (anon_sym_LBRACE, ACTIONS 61), (anon_sym_global, ACTIONS 63),
    (anon_sym_nonlocal, ACTIONS 65), (anon_sym_exec, ACTIONS 67), (anon_sym_type, ACTIONS 69),
    (anon_sym_class, ACTIONS 121), (anon_sym_struct, ACTIONS 121), (anon_sym_mut, ACTIONS 73),
    (anon_sym_out, ACTIONS 73), (anon_sym_trait, ACTIONS 123), (anon_sym_AT, ACTIONS 77),
    (anon_sym_DASH, ACTIONS 79), (anon_sym_PLUS, ACTIONS 79), (anon_sym_ref, ACTIONS 81),
    (anon_sym_var, ACTIONS 81), (anon_sym_not, ACTIONS 83), (anon_sym_TILDE, ACTIONS 79),
    (anon_sym_lambda, ACTIONS 85), (anon_sym_yield, ACTIONS 87), (sym_ellipsis, ACTIONS 89),
    (anon_sym___mlir_type, ACTIONS 91), (sym_integer, ACTIONS 93), (sym_float, ACTIONS 89),
    (anon_sym_await, ACTIONS 95), (sym_true, ACTIONS 93), (sym_false, ACTIONS 93),
    (sym_none, ACTIONS 93), (sym_comment, ACTIONS 3), (sym_line_continuation, ACTIONS 3),
    (sym__dedent, ACTIONS 129), (sym_string_start, ACTIONS 97)]"

definition parse_table_424 :: "(nat \<times> nat) list" where "parse_table_424 = [
    (sym__statement, STATE 925), (sym__simple_statements, STATE 925),
    (sym_import_statement, STATE 11814), (sym_future_import_statement, STATE 11814),
    (sym_import_from_statement, STATE 11814), (sym_print_statement, STATE 11814),
    (sym_assert_statement, STATE 11814), (sym_comptime_assert_statement, STATE 11814),
    (sym_expression_statement, STATE 11814), (sym_tuple_expression, STATE 12425),
    (sym_named_expression, STATE 7969), (sym__named_expression_lhs, STATE 12752),
    (sym_return_statement, STATE 11814), (sym_delete_statement, STATE 11814),
    (sym_raise_statement, STATE 11814), (sym_pass_statement, STATE 11814),
    (sym_break_statement, STATE 11814), (sym_continue_statement, STATE 11814),
    (sym_extension_definition, STATE 925), (sym_mlir_region, STATE 925),
    (sym_comptime_statement, STATE 925), (sym_if_statement, STATE 925),
    (sym_match_statement, STATE 925), (sym_for_statement, STATE 925),
    (sym_while_statement, STATE 925), (sym_try_statement, STATE 925),
    (sym_with_statement, STATE 925), (sym_function_definition, STATE 925),
    (sym_global_statement, STATE 11814), (sym_nonlocal_statement, STATE 11814),
    (sym_exec_statement, STATE 11814), (sym_type_alias_statement, STATE 11814),
    (sym_parameterized_alias_statement, STATE 11814), (sym_class_definition, STATE 925),
    (sym_trait_definition, STATE 925), (sym_decorated_definition, STATE 925),
    (sym_decorator, STATE 3670), (sym_block, STATE 6682), (sym_pattern, STATE 8086),
    (sym_tuple_pattern, STATE 8101), (sym_list_pattern, STATE 8101),
    (sym_list_splat_pattern, STATE 6819), (sym_as_pattern, STATE 7969),
    (sym_expression, STATE 9883), (sym_primary_expression, STATE 7326),
    (sym_comptime_expression, STATE 7017), (sym_transfer_expression, STATE 7017),
    (sym_not_operator, STATE 7969), (sym_boolean_operator, STATE 7969),
    (sym_binary_operator, STATE 7017), (sym_unary_operator, STATE 7017),
    (sym_comparison_operator, STATE 7969), (sym_lambda, STATE 7969),
    (sym_assignment, STATE 12425), (sym_augmented_assignment, STATE 12425),
    (sym_pattern_list, STATE 8578), (sym_yield, STATE 12425), (sym_attribute, STATE 6836),
    (sym_subscript, STATE 6838), (sym_call, STATE 6845), (sym_mlir_type, STATE 7017),
    (sym_list, STATE 7017), (sym_set, STATE 7017), (sym_tuple, STATE 7017),
    (sym_dictionary, STATE 7017), (sym_struct_literal, STATE 7017),
    (sym_list_comprehension, STATE 7017), (sym_dictionary_comprehension, STATE 7017),
    (sym_set_comprehension, STATE 7017), (sym_generator_expression, STATE 7017),
    (sym_parenthesized_expression, STATE 7017), (sym_conditional_expression, STATE 7969),
    (sym_concatenated_string, STATE 7017), (sym_string, STATE 6751), (sym_await, STATE 7017),
    (aux_sym_module_repeat1, STATE 925), (aux_sym_decorated_definition_repeat1, STATE 3670),
    (sym_identifier, ACTIONS 9), (anon_sym_import, ACTIONS 11), (anon_sym_from, ACTIONS 13),
    (anon_sym_LPAREN, ACTIONS 15), (anon_sym_STAR, ACTIONS 17), (anon_sym_print, ACTIONS 19),
    (anon_sym_comptime, ACTIONS 99), (anon_sym_assert, ACTIONS 23),
    (anon_sym___comptime_assert, ACTIONS 25), (anon_sym_return, ACTIONS 27),
    (anon_sym_del, ACTIONS 29), (anon_sym_raise, ACTIONS 31), (anon_sym_pass, ACTIONS 33),
    (anon_sym_break, ACTIONS 35), (anon_sym_continue, ACTIONS 37),
    (anon_sym___extension, ACTIONS 101), (anon_sym___mlir_region, ACTIONS 103),
    (anon_sym_if, ACTIONS 105), (anon_sym_match, ACTIONS 107), (anon_sym_async, ACTIONS 109),
    (anon_sym_for, ACTIONS 111), (anon_sym_while, ACTIONS 113), (anon_sym_try, ACTIONS 115),
    (anon_sym_with, ACTIONS 117), (anon_sym_def, ACTIONS 119), (anon_sym_fn, ACTIONS 119),
    (anon_sym_LBRACK, ACTIONS 59), (anon_sym_LBRACE, ACTIONS 61), (anon_sym_global, ACTIONS 63),
    (anon_sym_nonlocal, ACTIONS 65), (anon_sym_exec, ACTIONS 67), (anon_sym_type, ACTIONS 69),
    (anon_sym_class, ACTIONS 121), (anon_sym_struct, ACTIONS 121), (anon_sym_mut, ACTIONS 73),
    (anon_sym_out, ACTIONS 73), (anon_sym_trait, ACTIONS 123), (anon_sym_AT, ACTIONS 77),
    (anon_sym_DASH, ACTIONS 79), (anon_sym_PLUS, ACTIONS 79), (anon_sym_ref, ACTIONS 81),
    (anon_sym_var, ACTIONS 81), (anon_sym_not, ACTIONS 83), (anon_sym_TILDE, ACTIONS 79),
    (anon_sym_lambda, ACTIONS 85), (anon_sym_yield, ACTIONS 87), (sym_ellipsis, ACTIONS 89),
    (anon_sym___mlir_type, ACTIONS 91), (sym_integer, ACTIONS 93), (sym_float, ACTIONS 89),
    (anon_sym_await, ACTIONS 95), (sym_true, ACTIONS 93), (sym_false, ACTIONS 93),
    (sym_none, ACTIONS 93), (sym_comment, ACTIONS 3), (sym_line_continuation, ACTIONS 3),
    (sym__dedent, ACTIONS 129), (sym_string_start, ACTIONS 97)]"

definition parse_table_425 :: "(nat \<times> nat) list" where "parse_table_425 = [
    (sym__statement, STATE 925), (sym__simple_statements, STATE 925),
    (sym_import_statement, STATE 11814), (sym_future_import_statement, STATE 11814),
    (sym_import_from_statement, STATE 11814), (sym_print_statement, STATE 11814),
    (sym_assert_statement, STATE 11814), (sym_comptime_assert_statement, STATE 11814),
    (sym_expression_statement, STATE 11814), (sym_tuple_expression, STATE 12425),
    (sym_named_expression, STATE 7969), (sym__named_expression_lhs, STATE 12752),
    (sym_return_statement, STATE 11814), (sym_delete_statement, STATE 11814),
    (sym_raise_statement, STATE 11814), (sym_pass_statement, STATE 11814),
    (sym_break_statement, STATE 11814), (sym_continue_statement, STATE 11814),
    (sym_extension_definition, STATE 925), (sym_mlir_region, STATE 925),
    (sym_comptime_statement, STATE 925), (sym_if_statement, STATE 925),
    (sym_match_statement, STATE 925), (sym_for_statement, STATE 925),
    (sym_while_statement, STATE 925), (sym_try_statement, STATE 925),
    (sym_with_statement, STATE 925), (sym_function_definition, STATE 925),
    (sym_global_statement, STATE 11814), (sym_nonlocal_statement, STATE 11814),
    (sym_exec_statement, STATE 11814), (sym_type_alias_statement, STATE 11814),
    (sym_parameterized_alias_statement, STATE 11814), (sym_class_definition, STATE 925),
    (sym_trait_definition, STATE 925), (sym_decorated_definition, STATE 925),
    (sym_decorator, STATE 3670), (sym_block, STATE 6683), (sym_pattern, STATE 8086),
    (sym_tuple_pattern, STATE 8101), (sym_list_pattern, STATE 8101),
    (sym_list_splat_pattern, STATE 6819), (sym_as_pattern, STATE 7969),
    (sym_expression, STATE 9883), (sym_primary_expression, STATE 7326),
    (sym_comptime_expression, STATE 7017), (sym_transfer_expression, STATE 7017),
    (sym_not_operator, STATE 7969), (sym_boolean_operator, STATE 7969),
    (sym_binary_operator, STATE 7017), (sym_unary_operator, STATE 7017),
    (sym_comparison_operator, STATE 7969), (sym_lambda, STATE 7969),
    (sym_assignment, STATE 12425), (sym_augmented_assignment, STATE 12425),
    (sym_pattern_list, STATE 8578), (sym_yield, STATE 12425), (sym_attribute, STATE 6836),
    (sym_subscript, STATE 6838), (sym_call, STATE 6845), (sym_mlir_type, STATE 7017),
    (sym_list, STATE 7017), (sym_set, STATE 7017), (sym_tuple, STATE 7017),
    (sym_dictionary, STATE 7017), (sym_struct_literal, STATE 7017),
    (sym_list_comprehension, STATE 7017), (sym_dictionary_comprehension, STATE 7017),
    (sym_set_comprehension, STATE 7017), (sym_generator_expression, STATE 7017),
    (sym_parenthesized_expression, STATE 7017), (sym_conditional_expression, STATE 7969),
    (sym_concatenated_string, STATE 7017), (sym_string, STATE 6751), (sym_await, STATE 7017),
    (aux_sym_module_repeat1, STATE 925), (aux_sym_decorated_definition_repeat1, STATE 3670),
    (sym_identifier, ACTIONS 9), (anon_sym_import, ACTIONS 11), (anon_sym_from, ACTIONS 13),
    (anon_sym_LPAREN, ACTIONS 15), (anon_sym_STAR, ACTIONS 17), (anon_sym_print, ACTIONS 19),
    (anon_sym_comptime, ACTIONS 99), (anon_sym_assert, ACTIONS 23),
    (anon_sym___comptime_assert, ACTIONS 25), (anon_sym_return, ACTIONS 27),
    (anon_sym_del, ACTIONS 29), (anon_sym_raise, ACTIONS 31), (anon_sym_pass, ACTIONS 33),
    (anon_sym_break, ACTIONS 35), (anon_sym_continue, ACTIONS 37),
    (anon_sym___extension, ACTIONS 101), (anon_sym___mlir_region, ACTIONS 103),
    (anon_sym_if, ACTIONS 105), (anon_sym_match, ACTIONS 107), (anon_sym_async, ACTIONS 109),
    (anon_sym_for, ACTIONS 111), (anon_sym_while, ACTIONS 113), (anon_sym_try, ACTIONS 115),
    (anon_sym_with, ACTIONS 117), (anon_sym_def, ACTIONS 119), (anon_sym_fn, ACTIONS 119),
    (anon_sym_LBRACK, ACTIONS 59), (anon_sym_LBRACE, ACTIONS 61), (anon_sym_global, ACTIONS 63),
    (anon_sym_nonlocal, ACTIONS 65), (anon_sym_exec, ACTIONS 67), (anon_sym_type, ACTIONS 69),
    (anon_sym_class, ACTIONS 121), (anon_sym_struct, ACTIONS 121), (anon_sym_mut, ACTIONS 73),
    (anon_sym_out, ACTIONS 73), (anon_sym_trait, ACTIONS 123), (anon_sym_AT, ACTIONS 77),
    (anon_sym_DASH, ACTIONS 79), (anon_sym_PLUS, ACTIONS 79), (anon_sym_ref, ACTIONS 81),
    (anon_sym_var, ACTIONS 81), (anon_sym_not, ACTIONS 83), (anon_sym_TILDE, ACTIONS 79),
    (anon_sym_lambda, ACTIONS 85), (anon_sym_yield, ACTIONS 87), (sym_ellipsis, ACTIONS 89),
    (anon_sym___mlir_type, ACTIONS 91), (sym_integer, ACTIONS 93), (sym_float, ACTIONS 89),
    (anon_sym_await, ACTIONS 95), (sym_true, ACTIONS 93), (sym_false, ACTIONS 93),
    (sym_none, ACTIONS 93), (sym_comment, ACTIONS 3), (sym_line_continuation, ACTIONS 3),
    (sym__dedent, ACTIONS 129), (sym_string_start, ACTIONS 97)]"

definition parse_table_426 :: "(nat \<times> nat) list" where "parse_table_426 = [
    (sym__statement, STATE 925), (sym__simple_statements, STATE 925),
    (sym_import_statement, STATE 11814), (sym_future_import_statement, STATE 11814),
    (sym_import_from_statement, STATE 11814), (sym_print_statement, STATE 11814),
    (sym_assert_statement, STATE 11814), (sym_comptime_assert_statement, STATE 11814),
    (sym_expression_statement, STATE 11814), (sym_tuple_expression, STATE 12425),
    (sym_named_expression, STATE 7969), (sym__named_expression_lhs, STATE 12752),
    (sym_return_statement, STATE 11814), (sym_delete_statement, STATE 11814),
    (sym_raise_statement, STATE 11814), (sym_pass_statement, STATE 11814),
    (sym_break_statement, STATE 11814), (sym_continue_statement, STATE 11814),
    (sym_extension_definition, STATE 925), (sym_mlir_region, STATE 925),
    (sym_comptime_statement, STATE 925), (sym_if_statement, STATE 925),
    (sym_match_statement, STATE 925), (sym_for_statement, STATE 925),
    (sym_while_statement, STATE 925), (sym_try_statement, STATE 925),
    (sym_with_statement, STATE 925), (sym_function_definition, STATE 925),
    (sym_global_statement, STATE 11814), (sym_nonlocal_statement, STATE 11814),
    (sym_exec_statement, STATE 11814), (sym_type_alias_statement, STATE 11814),
    (sym_parameterized_alias_statement, STATE 11814), (sym_class_definition, STATE 925),
    (sym_trait_definition, STATE 925), (sym_decorated_definition, STATE 925),
    (sym_decorator, STATE 3670), (sym_block, STATE 6686), (sym_pattern, STATE 8086),
    (sym_tuple_pattern, STATE 8101), (sym_list_pattern, STATE 8101),
    (sym_list_splat_pattern, STATE 6819), (sym_as_pattern, STATE 7969),
    (sym_expression, STATE 9883), (sym_primary_expression, STATE 7326),
    (sym_comptime_expression, STATE 7017), (sym_transfer_expression, STATE 7017),
    (sym_not_operator, STATE 7969), (sym_boolean_operator, STATE 7969),
    (sym_binary_operator, STATE 7017), (sym_unary_operator, STATE 7017),
    (sym_comparison_operator, STATE 7969), (sym_lambda, STATE 7969),
    (sym_assignment, STATE 12425), (sym_augmented_assignment, STATE 12425),
    (sym_pattern_list, STATE 8578), (sym_yield, STATE 12425), (sym_attribute, STATE 6836),
    (sym_subscript, STATE 6838), (sym_call, STATE 6845), (sym_mlir_type, STATE 7017),
    (sym_list, STATE 7017), (sym_set, STATE 7017), (sym_tuple, STATE 7017),
    (sym_dictionary, STATE 7017), (sym_struct_literal, STATE 7017),
    (sym_list_comprehension, STATE 7017), (sym_dictionary_comprehension, STATE 7017),
    (sym_set_comprehension, STATE 7017), (sym_generator_expression, STATE 7017),
    (sym_parenthesized_expression, STATE 7017), (sym_conditional_expression, STATE 7969),
    (sym_concatenated_string, STATE 7017), (sym_string, STATE 6751), (sym_await, STATE 7017),
    (aux_sym_module_repeat1, STATE 925), (aux_sym_decorated_definition_repeat1, STATE 3670),
    (sym_identifier, ACTIONS 9), (anon_sym_import, ACTIONS 11), (anon_sym_from, ACTIONS 13),
    (anon_sym_LPAREN, ACTIONS 15), (anon_sym_STAR, ACTIONS 17), (anon_sym_print, ACTIONS 19),
    (anon_sym_comptime, ACTIONS 99), (anon_sym_assert, ACTIONS 23),
    (anon_sym___comptime_assert, ACTIONS 25), (anon_sym_return, ACTIONS 27),
    (anon_sym_del, ACTIONS 29), (anon_sym_raise, ACTIONS 31), (anon_sym_pass, ACTIONS 33),
    (anon_sym_break, ACTIONS 35), (anon_sym_continue, ACTIONS 37),
    (anon_sym___extension, ACTIONS 101), (anon_sym___mlir_region, ACTIONS 103),
    (anon_sym_if, ACTIONS 105), (anon_sym_match, ACTIONS 107), (anon_sym_async, ACTIONS 109),
    (anon_sym_for, ACTIONS 111), (anon_sym_while, ACTIONS 113), (anon_sym_try, ACTIONS 115),
    (anon_sym_with, ACTIONS 117), (anon_sym_def, ACTIONS 119), (anon_sym_fn, ACTIONS 119),
    (anon_sym_LBRACK, ACTIONS 59), (anon_sym_LBRACE, ACTIONS 61), (anon_sym_global, ACTIONS 63),
    (anon_sym_nonlocal, ACTIONS 65), (anon_sym_exec, ACTIONS 67), (anon_sym_type, ACTIONS 69),
    (anon_sym_class, ACTIONS 121), (anon_sym_struct, ACTIONS 121), (anon_sym_mut, ACTIONS 73),
    (anon_sym_out, ACTIONS 73), (anon_sym_trait, ACTIONS 123), (anon_sym_AT, ACTIONS 77),
    (anon_sym_DASH, ACTIONS 79), (anon_sym_PLUS, ACTIONS 79), (anon_sym_ref, ACTIONS 81),
    (anon_sym_var, ACTIONS 81), (anon_sym_not, ACTIONS 83), (anon_sym_TILDE, ACTIONS 79),
    (anon_sym_lambda, ACTIONS 85), (anon_sym_yield, ACTIONS 87), (sym_ellipsis, ACTIONS 89),
    (anon_sym___mlir_type, ACTIONS 91), (sym_integer, ACTIONS 93), (sym_float, ACTIONS 89),
    (anon_sym_await, ACTIONS 95), (sym_true, ACTIONS 93), (sym_false, ACTIONS 93),
    (sym_none, ACTIONS 93), (sym_comment, ACTIONS 3), (sym_line_continuation, ACTIONS 3),
    (sym__dedent, ACTIONS 129), (sym_string_start, ACTIONS 97)]"

definition parse_table_427 :: "(nat \<times> nat) list" where "parse_table_427 = [
    (sym__statement, STATE 925), (sym__simple_statements, STATE 925),
    (sym_import_statement, STATE 11814), (sym_future_import_statement, STATE 11814),
    (sym_import_from_statement, STATE 11814), (sym_print_statement, STATE 11814),
    (sym_assert_statement, STATE 11814), (sym_comptime_assert_statement, STATE 11814),
    (sym_expression_statement, STATE 11814), (sym_tuple_expression, STATE 12425),
    (sym_named_expression, STATE 7969), (sym__named_expression_lhs, STATE 12752),
    (sym_return_statement, STATE 11814), (sym_delete_statement, STATE 11814),
    (sym_raise_statement, STATE 11814), (sym_pass_statement, STATE 11814),
    (sym_break_statement, STATE 11814), (sym_continue_statement, STATE 11814),
    (sym_extension_definition, STATE 925), (sym_mlir_region, STATE 925),
    (sym_comptime_statement, STATE 925), (sym_if_statement, STATE 925),
    (sym_match_statement, STATE 925), (sym_for_statement, STATE 925),
    (sym_while_statement, STATE 925), (sym_try_statement, STATE 925),
    (sym_with_statement, STATE 925), (sym_function_definition, STATE 925),
    (sym_global_statement, STATE 11814), (sym_nonlocal_statement, STATE 11814),
    (sym_exec_statement, STATE 11814), (sym_type_alias_statement, STATE 11814),
    (sym_parameterized_alias_statement, STATE 11814), (sym_class_definition, STATE 925),
    (sym_trait_definition, STATE 925), (sym_decorated_definition, STATE 925),
    (sym_decorator, STATE 3670), (sym_block, STATE 6687), (sym_pattern, STATE 8086),
    (sym_tuple_pattern, STATE 8101), (sym_list_pattern, STATE 8101),
    (sym_list_splat_pattern, STATE 6819), (sym_as_pattern, STATE 7969),
    (sym_expression, STATE 9883), (sym_primary_expression, STATE 7326),
    (sym_comptime_expression, STATE 7017), (sym_transfer_expression, STATE 7017),
    (sym_not_operator, STATE 7969), (sym_boolean_operator, STATE 7969),
    (sym_binary_operator, STATE 7017), (sym_unary_operator, STATE 7017),
    (sym_comparison_operator, STATE 7969), (sym_lambda, STATE 7969),
    (sym_assignment, STATE 12425), (sym_augmented_assignment, STATE 12425),
    (sym_pattern_list, STATE 8578), (sym_yield, STATE 12425), (sym_attribute, STATE 6836),
    (sym_subscript, STATE 6838), (sym_call, STATE 6845), (sym_mlir_type, STATE 7017),
    (sym_list, STATE 7017), (sym_set, STATE 7017), (sym_tuple, STATE 7017),
    (sym_dictionary, STATE 7017), (sym_struct_literal, STATE 7017),
    (sym_list_comprehension, STATE 7017), (sym_dictionary_comprehension, STATE 7017),
    (sym_set_comprehension, STATE 7017), (sym_generator_expression, STATE 7017),
    (sym_parenthesized_expression, STATE 7017), (sym_conditional_expression, STATE 7969),
    (sym_concatenated_string, STATE 7017), (sym_string, STATE 6751), (sym_await, STATE 7017),
    (aux_sym_module_repeat1, STATE 925), (aux_sym_decorated_definition_repeat1, STATE 3670),
    (sym_identifier, ACTIONS 9), (anon_sym_import, ACTIONS 11), (anon_sym_from, ACTIONS 13),
    (anon_sym_LPAREN, ACTIONS 15), (anon_sym_STAR, ACTIONS 17), (anon_sym_print, ACTIONS 19),
    (anon_sym_comptime, ACTIONS 99), (anon_sym_assert, ACTIONS 23),
    (anon_sym___comptime_assert, ACTIONS 25), (anon_sym_return, ACTIONS 27),
    (anon_sym_del, ACTIONS 29), (anon_sym_raise, ACTIONS 31), (anon_sym_pass, ACTIONS 33),
    (anon_sym_break, ACTIONS 35), (anon_sym_continue, ACTIONS 37),
    (anon_sym___extension, ACTIONS 101), (anon_sym___mlir_region, ACTIONS 103),
    (anon_sym_if, ACTIONS 105), (anon_sym_match, ACTIONS 107), (anon_sym_async, ACTIONS 109),
    (anon_sym_for, ACTIONS 111), (anon_sym_while, ACTIONS 113), (anon_sym_try, ACTIONS 115),
    (anon_sym_with, ACTIONS 117), (anon_sym_def, ACTIONS 119), (anon_sym_fn, ACTIONS 119),
    (anon_sym_LBRACK, ACTIONS 59), (anon_sym_LBRACE, ACTIONS 61), (anon_sym_global, ACTIONS 63),
    (anon_sym_nonlocal, ACTIONS 65), (anon_sym_exec, ACTIONS 67), (anon_sym_type, ACTIONS 69),
    (anon_sym_class, ACTIONS 121), (anon_sym_struct, ACTIONS 121), (anon_sym_mut, ACTIONS 73),
    (anon_sym_out, ACTIONS 73), (anon_sym_trait, ACTIONS 123), (anon_sym_AT, ACTIONS 77),
    (anon_sym_DASH, ACTIONS 79), (anon_sym_PLUS, ACTIONS 79), (anon_sym_ref, ACTIONS 81),
    (anon_sym_var, ACTIONS 81), (anon_sym_not, ACTIONS 83), (anon_sym_TILDE, ACTIONS 79),
    (anon_sym_lambda, ACTIONS 85), (anon_sym_yield, ACTIONS 87), (sym_ellipsis, ACTIONS 89),
    (anon_sym___mlir_type, ACTIONS 91), (sym_integer, ACTIONS 93), (sym_float, ACTIONS 89),
    (anon_sym_await, ACTIONS 95), (sym_true, ACTIONS 93), (sym_false, ACTIONS 93),
    (sym_none, ACTIONS 93), (sym_comment, ACTIONS 3), (sym_line_continuation, ACTIONS 3),
    (sym__dedent, ACTIONS 129), (sym_string_start, ACTIONS 97)]"

definition parse_table_428 :: "(nat \<times> nat) list" where "parse_table_428 = [
    (sym__statement, STATE 925), (sym__simple_statements, STATE 925),
    (sym_import_statement, STATE 11814), (sym_future_import_statement, STATE 11814),
    (sym_import_from_statement, STATE 11814), (sym_print_statement, STATE 11814),
    (sym_assert_statement, STATE 11814), (sym_comptime_assert_statement, STATE 11814),
    (sym_expression_statement, STATE 11814), (sym_tuple_expression, STATE 12425),
    (sym_named_expression, STATE 7969), (sym__named_expression_lhs, STATE 12752),
    (sym_return_statement, STATE 11814), (sym_delete_statement, STATE 11814),
    (sym_raise_statement, STATE 11814), (sym_pass_statement, STATE 11814),
    (sym_break_statement, STATE 11814), (sym_continue_statement, STATE 11814),
    (sym_extension_definition, STATE 925), (sym_mlir_region, STATE 925),
    (sym_comptime_statement, STATE 925), (sym_if_statement, STATE 925),
    (sym_match_statement, STATE 925), (sym_for_statement, STATE 925),
    (sym_while_statement, STATE 925), (sym_try_statement, STATE 925),
    (sym_with_statement, STATE 925), (sym_function_definition, STATE 925),
    (sym_global_statement, STATE 11814), (sym_nonlocal_statement, STATE 11814),
    (sym_exec_statement, STATE 11814), (sym_type_alias_statement, STATE 11814),
    (sym_parameterized_alias_statement, STATE 11814), (sym_class_definition, STATE 925),
    (sym_trait_definition, STATE 925), (sym_decorated_definition, STATE 925),
    (sym_decorator, STATE 3670), (sym_block, STATE 6690), (sym_pattern, STATE 8086),
    (sym_tuple_pattern, STATE 8101), (sym_list_pattern, STATE 8101),
    (sym_list_splat_pattern, STATE 6819), (sym_as_pattern, STATE 7969),
    (sym_expression, STATE 9883), (sym_primary_expression, STATE 7326),
    (sym_comptime_expression, STATE 7017), (sym_transfer_expression, STATE 7017),
    (sym_not_operator, STATE 7969), (sym_boolean_operator, STATE 7969),
    (sym_binary_operator, STATE 7017), (sym_unary_operator, STATE 7017),
    (sym_comparison_operator, STATE 7969), (sym_lambda, STATE 7969),
    (sym_assignment, STATE 12425), (sym_augmented_assignment, STATE 12425),
    (sym_pattern_list, STATE 8578), (sym_yield, STATE 12425), (sym_attribute, STATE 6836),
    (sym_subscript, STATE 6838), (sym_call, STATE 6845), (sym_mlir_type, STATE 7017),
    (sym_list, STATE 7017), (sym_set, STATE 7017), (sym_tuple, STATE 7017),
    (sym_dictionary, STATE 7017), (sym_struct_literal, STATE 7017),
    (sym_list_comprehension, STATE 7017), (sym_dictionary_comprehension, STATE 7017),
    (sym_set_comprehension, STATE 7017), (sym_generator_expression, STATE 7017),
    (sym_parenthesized_expression, STATE 7017), (sym_conditional_expression, STATE 7969),
    (sym_concatenated_string, STATE 7017), (sym_string, STATE 6751), (sym_await, STATE 7017),
    (aux_sym_module_repeat1, STATE 925), (aux_sym_decorated_definition_repeat1, STATE 3670),
    (sym_identifier, ACTIONS 9), (anon_sym_import, ACTIONS 11), (anon_sym_from, ACTIONS 13),
    (anon_sym_LPAREN, ACTIONS 15), (anon_sym_STAR, ACTIONS 17), (anon_sym_print, ACTIONS 19),
    (anon_sym_comptime, ACTIONS 99), (anon_sym_assert, ACTIONS 23),
    (anon_sym___comptime_assert, ACTIONS 25), (anon_sym_return, ACTIONS 27),
    (anon_sym_del, ACTIONS 29), (anon_sym_raise, ACTIONS 31), (anon_sym_pass, ACTIONS 33),
    (anon_sym_break, ACTIONS 35), (anon_sym_continue, ACTIONS 37),
    (anon_sym___extension, ACTIONS 101), (anon_sym___mlir_region, ACTIONS 103),
    (anon_sym_if, ACTIONS 105), (anon_sym_match, ACTIONS 107), (anon_sym_async, ACTIONS 109),
    (anon_sym_for, ACTIONS 111), (anon_sym_while, ACTIONS 113), (anon_sym_try, ACTIONS 115),
    (anon_sym_with, ACTIONS 117), (anon_sym_def, ACTIONS 119), (anon_sym_fn, ACTIONS 119),
    (anon_sym_LBRACK, ACTIONS 59), (anon_sym_LBRACE, ACTIONS 61), (anon_sym_global, ACTIONS 63),
    (anon_sym_nonlocal, ACTIONS 65), (anon_sym_exec, ACTIONS 67), (anon_sym_type, ACTIONS 69),
    (anon_sym_class, ACTIONS 121), (anon_sym_struct, ACTIONS 121), (anon_sym_mut, ACTIONS 73),
    (anon_sym_out, ACTIONS 73), (anon_sym_trait, ACTIONS 123), (anon_sym_AT, ACTIONS 77),
    (anon_sym_DASH, ACTIONS 79), (anon_sym_PLUS, ACTIONS 79), (anon_sym_ref, ACTIONS 81),
    (anon_sym_var, ACTIONS 81), (anon_sym_not, ACTIONS 83), (anon_sym_TILDE, ACTIONS 79),
    (anon_sym_lambda, ACTIONS 85), (anon_sym_yield, ACTIONS 87), (sym_ellipsis, ACTIONS 89),
    (anon_sym___mlir_type, ACTIONS 91), (sym_integer, ACTIONS 93), (sym_float, ACTIONS 89),
    (anon_sym_await, ACTIONS 95), (sym_true, ACTIONS 93), (sym_false, ACTIONS 93),
    (sym_none, ACTIONS 93), (sym_comment, ACTIONS 3), (sym_line_continuation, ACTIONS 3),
    (sym__dedent, ACTIONS 129), (sym_string_start, ACTIONS 97)]"

definition parse_table_429 :: "(nat \<times> nat) list" where "parse_table_429 = [
    (sym__statement, STATE 925), (sym__simple_statements, STATE 925),
    (sym_import_statement, STATE 11814), (sym_future_import_statement, STATE 11814),
    (sym_import_from_statement, STATE 11814), (sym_print_statement, STATE 11814),
    (sym_assert_statement, STATE 11814), (sym_comptime_assert_statement, STATE 11814),
    (sym_expression_statement, STATE 11814), (sym_tuple_expression, STATE 12425),
    (sym_named_expression, STATE 7969), (sym__named_expression_lhs, STATE 12752),
    (sym_return_statement, STATE 11814), (sym_delete_statement, STATE 11814),
    (sym_raise_statement, STATE 11814), (sym_pass_statement, STATE 11814),
    (sym_break_statement, STATE 11814), (sym_continue_statement, STATE 11814),
    (sym_extension_definition, STATE 925), (sym_mlir_region, STATE 925),
    (sym_comptime_statement, STATE 925), (sym_if_statement, STATE 925),
    (sym_match_statement, STATE 925), (sym_for_statement, STATE 925),
    (sym_while_statement, STATE 925), (sym_try_statement, STATE 925),
    (sym_with_statement, STATE 925), (sym_function_definition, STATE 925),
    (sym_global_statement, STATE 11814), (sym_nonlocal_statement, STATE 11814),
    (sym_exec_statement, STATE 11814), (sym_type_alias_statement, STATE 11814),
    (sym_parameterized_alias_statement, STATE 11814), (sym_class_definition, STATE 925),
    (sym_trait_definition, STATE 925), (sym_decorated_definition, STATE 925),
    (sym_decorator, STATE 3670), (sym_block, STATE 6694), (sym_pattern, STATE 8086),
    (sym_tuple_pattern, STATE 8101), (sym_list_pattern, STATE 8101),
    (sym_list_splat_pattern, STATE 6819), (sym_as_pattern, STATE 7969),
    (sym_expression, STATE 9883), (sym_primary_expression, STATE 7326),
    (sym_comptime_expression, STATE 7017), (sym_transfer_expression, STATE 7017),
    (sym_not_operator, STATE 7969), (sym_boolean_operator, STATE 7969),
    (sym_binary_operator, STATE 7017), (sym_unary_operator, STATE 7017),
    (sym_comparison_operator, STATE 7969), (sym_lambda, STATE 7969),
    (sym_assignment, STATE 12425), (sym_augmented_assignment, STATE 12425),
    (sym_pattern_list, STATE 8578), (sym_yield, STATE 12425), (sym_attribute, STATE 6836),
    (sym_subscript, STATE 6838), (sym_call, STATE 6845), (sym_mlir_type, STATE 7017),
    (sym_list, STATE 7017), (sym_set, STATE 7017), (sym_tuple, STATE 7017),
    (sym_dictionary, STATE 7017), (sym_struct_literal, STATE 7017),
    (sym_list_comprehension, STATE 7017), (sym_dictionary_comprehension, STATE 7017),
    (sym_set_comprehension, STATE 7017), (sym_generator_expression, STATE 7017),
    (sym_parenthesized_expression, STATE 7017), (sym_conditional_expression, STATE 7969),
    (sym_concatenated_string, STATE 7017), (sym_string, STATE 6751), (sym_await, STATE 7017),
    (aux_sym_module_repeat1, STATE 925), (aux_sym_decorated_definition_repeat1, STATE 3670),
    (sym_identifier, ACTIONS 9), (anon_sym_import, ACTIONS 11), (anon_sym_from, ACTIONS 13),
    (anon_sym_LPAREN, ACTIONS 15), (anon_sym_STAR, ACTIONS 17), (anon_sym_print, ACTIONS 19),
    (anon_sym_comptime, ACTIONS 99), (anon_sym_assert, ACTIONS 23),
    (anon_sym___comptime_assert, ACTIONS 25), (anon_sym_return, ACTIONS 27),
    (anon_sym_del, ACTIONS 29), (anon_sym_raise, ACTIONS 31), (anon_sym_pass, ACTIONS 33),
    (anon_sym_break, ACTIONS 35), (anon_sym_continue, ACTIONS 37),
    (anon_sym___extension, ACTIONS 101), (anon_sym___mlir_region, ACTIONS 103),
    (anon_sym_if, ACTIONS 105), (anon_sym_match, ACTIONS 107), (anon_sym_async, ACTIONS 109),
    (anon_sym_for, ACTIONS 111), (anon_sym_while, ACTIONS 113), (anon_sym_try, ACTIONS 115),
    (anon_sym_with, ACTIONS 117), (anon_sym_def, ACTIONS 119), (anon_sym_fn, ACTIONS 119),
    (anon_sym_LBRACK, ACTIONS 59), (anon_sym_LBRACE, ACTIONS 61), (anon_sym_global, ACTIONS 63),
    (anon_sym_nonlocal, ACTIONS 65), (anon_sym_exec, ACTIONS 67), (anon_sym_type, ACTIONS 69),
    (anon_sym_class, ACTIONS 121), (anon_sym_struct, ACTIONS 121), (anon_sym_mut, ACTIONS 73),
    (anon_sym_out, ACTIONS 73), (anon_sym_trait, ACTIONS 123), (anon_sym_AT, ACTIONS 77),
    (anon_sym_DASH, ACTIONS 79), (anon_sym_PLUS, ACTIONS 79), (anon_sym_ref, ACTIONS 81),
    (anon_sym_var, ACTIONS 81), (anon_sym_not, ACTIONS 83), (anon_sym_TILDE, ACTIONS 79),
    (anon_sym_lambda, ACTIONS 85), (anon_sym_yield, ACTIONS 87), (sym_ellipsis, ACTIONS 89),
    (anon_sym___mlir_type, ACTIONS 91), (sym_integer, ACTIONS 93), (sym_float, ACTIONS 89),
    (anon_sym_await, ACTIONS 95), (sym_true, ACTIONS 93), (sym_false, ACTIONS 93),
    (sym_none, ACTIONS 93), (sym_comment, ACTIONS 3), (sym_line_continuation, ACTIONS 3),
    (sym__dedent, ACTIONS 129), (sym_string_start, ACTIONS 97)]"

definition parse_table_430 :: "(nat \<times> nat) list" where "parse_table_430 = [
    (sym__statement, STATE 925), (sym__simple_statements, STATE 925),
    (sym_import_statement, STATE 11814), (sym_future_import_statement, STATE 11814),
    (sym_import_from_statement, STATE 11814), (sym_print_statement, STATE 11814),
    (sym_assert_statement, STATE 11814), (sym_comptime_assert_statement, STATE 11814),
    (sym_expression_statement, STATE 11814), (sym_tuple_expression, STATE 12425),
    (sym_named_expression, STATE 7969), (sym__named_expression_lhs, STATE 12752),
    (sym_return_statement, STATE 11814), (sym_delete_statement, STATE 11814),
    (sym_raise_statement, STATE 11814), (sym_pass_statement, STATE 11814),
    (sym_break_statement, STATE 11814), (sym_continue_statement, STATE 11814),
    (sym_extension_definition, STATE 925), (sym_mlir_region, STATE 925),
    (sym_comptime_statement, STATE 925), (sym_if_statement, STATE 925),
    (sym_match_statement, STATE 925), (sym_for_statement, STATE 925),
    (sym_while_statement, STATE 925), (sym_try_statement, STATE 925),
    (sym_with_statement, STATE 925), (sym_function_definition, STATE 925),
    (sym_global_statement, STATE 11814), (sym_nonlocal_statement, STATE 11814),
    (sym_exec_statement, STATE 11814), (sym_type_alias_statement, STATE 11814),
    (sym_parameterized_alias_statement, STATE 11814), (sym_class_definition, STATE 925),
    (sym_trait_definition, STATE 925), (sym_decorated_definition, STATE 925),
    (sym_decorator, STATE 3670), (sym_block, STATE 6705), (sym_pattern, STATE 8086),
    (sym_tuple_pattern, STATE 8101), (sym_list_pattern, STATE 8101),
    (sym_list_splat_pattern, STATE 6819), (sym_as_pattern, STATE 7969),
    (sym_expression, STATE 9883), (sym_primary_expression, STATE 7326),
    (sym_comptime_expression, STATE 7017), (sym_transfer_expression, STATE 7017),
    (sym_not_operator, STATE 7969), (sym_boolean_operator, STATE 7969),
    (sym_binary_operator, STATE 7017), (sym_unary_operator, STATE 7017),
    (sym_comparison_operator, STATE 7969), (sym_lambda, STATE 7969),
    (sym_assignment, STATE 12425), (sym_augmented_assignment, STATE 12425),
    (sym_pattern_list, STATE 8578), (sym_yield, STATE 12425), (sym_attribute, STATE 6836),
    (sym_subscript, STATE 6838), (sym_call, STATE 6845), (sym_mlir_type, STATE 7017),
    (sym_list, STATE 7017), (sym_set, STATE 7017), (sym_tuple, STATE 7017),
    (sym_dictionary, STATE 7017), (sym_struct_literal, STATE 7017),
    (sym_list_comprehension, STATE 7017), (sym_dictionary_comprehension, STATE 7017),
    (sym_set_comprehension, STATE 7017), (sym_generator_expression, STATE 7017),
    (sym_parenthesized_expression, STATE 7017), (sym_conditional_expression, STATE 7969),
    (sym_concatenated_string, STATE 7017), (sym_string, STATE 6751), (sym_await, STATE 7017),
    (aux_sym_module_repeat1, STATE 925), (aux_sym_decorated_definition_repeat1, STATE 3670),
    (sym_identifier, ACTIONS 9), (anon_sym_import, ACTIONS 11), (anon_sym_from, ACTIONS 13),
    (anon_sym_LPAREN, ACTIONS 15), (anon_sym_STAR, ACTIONS 17), (anon_sym_print, ACTIONS 19),
    (anon_sym_comptime, ACTIONS 99), (anon_sym_assert, ACTIONS 23),
    (anon_sym___comptime_assert, ACTIONS 25), (anon_sym_return, ACTIONS 27),
    (anon_sym_del, ACTIONS 29), (anon_sym_raise, ACTIONS 31), (anon_sym_pass, ACTIONS 33),
    (anon_sym_break, ACTIONS 35), (anon_sym_continue, ACTIONS 37),
    (anon_sym___extension, ACTIONS 101), (anon_sym___mlir_region, ACTIONS 103),
    (anon_sym_if, ACTIONS 105), (anon_sym_match, ACTIONS 107), (anon_sym_async, ACTIONS 109),
    (anon_sym_for, ACTIONS 111), (anon_sym_while, ACTIONS 113), (anon_sym_try, ACTIONS 115),
    (anon_sym_with, ACTIONS 117), (anon_sym_def, ACTIONS 119), (anon_sym_fn, ACTIONS 119),
    (anon_sym_LBRACK, ACTIONS 59), (anon_sym_LBRACE, ACTIONS 61), (anon_sym_global, ACTIONS 63),
    (anon_sym_nonlocal, ACTIONS 65), (anon_sym_exec, ACTIONS 67), (anon_sym_type, ACTIONS 69),
    (anon_sym_class, ACTIONS 121), (anon_sym_struct, ACTIONS 121), (anon_sym_mut, ACTIONS 73),
    (anon_sym_out, ACTIONS 73), (anon_sym_trait, ACTIONS 123), (anon_sym_AT, ACTIONS 77),
    (anon_sym_DASH, ACTIONS 79), (anon_sym_PLUS, ACTIONS 79), (anon_sym_ref, ACTIONS 81),
    (anon_sym_var, ACTIONS 81), (anon_sym_not, ACTIONS 83), (anon_sym_TILDE, ACTIONS 79),
    (anon_sym_lambda, ACTIONS 85), (anon_sym_yield, ACTIONS 87), (sym_ellipsis, ACTIONS 89),
    (anon_sym___mlir_type, ACTIONS 91), (sym_integer, ACTIONS 93), (sym_float, ACTIONS 89),
    (anon_sym_await, ACTIONS 95), (sym_true, ACTIONS 93), (sym_false, ACTIONS 93),
    (sym_none, ACTIONS 93), (sym_comment, ACTIONS 3), (sym_line_continuation, ACTIONS 3),
    (sym__dedent, ACTIONS 129), (sym_string_start, ACTIONS 97)]"

definition parse_table_431 :: "(nat \<times> nat) list" where "parse_table_431 = [
    (sym__statement, STATE 925), (sym__simple_statements, STATE 925),
    (sym_import_statement, STATE 11814), (sym_future_import_statement, STATE 11814),
    (sym_import_from_statement, STATE 11814), (sym_print_statement, STATE 11814),
    (sym_assert_statement, STATE 11814), (sym_comptime_assert_statement, STATE 11814),
    (sym_expression_statement, STATE 11814), (sym_tuple_expression, STATE 12425),
    (sym_named_expression, STATE 7969), (sym__named_expression_lhs, STATE 12752),
    (sym_return_statement, STATE 11814), (sym_delete_statement, STATE 11814),
    (sym_raise_statement, STATE 11814), (sym_pass_statement, STATE 11814),
    (sym_break_statement, STATE 11814), (sym_continue_statement, STATE 11814),
    (sym_extension_definition, STATE 925), (sym_mlir_region, STATE 925),
    (sym_comptime_statement, STATE 925), (sym_if_statement, STATE 925),
    (sym_match_statement, STATE 925), (sym_for_statement, STATE 925),
    (sym_while_statement, STATE 925), (sym_try_statement, STATE 925),
    (sym_with_statement, STATE 925), (sym_function_definition, STATE 925),
    (sym_global_statement, STATE 11814), (sym_nonlocal_statement, STATE 11814),
    (sym_exec_statement, STATE 11814), (sym_type_alias_statement, STATE 11814),
    (sym_parameterized_alias_statement, STATE 11814), (sym_class_definition, STATE 925),
    (sym_trait_definition, STATE 925), (sym_decorated_definition, STATE 925),
    (sym_decorator, STATE 3670), (sym_block, STATE 6709), (sym_pattern, STATE 8086),
    (sym_tuple_pattern, STATE 8101), (sym_list_pattern, STATE 8101),
    (sym_list_splat_pattern, STATE 6819), (sym_as_pattern, STATE 7969),
    (sym_expression, STATE 9883), (sym_primary_expression, STATE 7326),
    (sym_comptime_expression, STATE 7017), (sym_transfer_expression, STATE 7017),
    (sym_not_operator, STATE 7969), (sym_boolean_operator, STATE 7969),
    (sym_binary_operator, STATE 7017), (sym_unary_operator, STATE 7017),
    (sym_comparison_operator, STATE 7969), (sym_lambda, STATE 7969),
    (sym_assignment, STATE 12425), (sym_augmented_assignment, STATE 12425),
    (sym_pattern_list, STATE 8578), (sym_yield, STATE 12425), (sym_attribute, STATE 6836),
    (sym_subscript, STATE 6838), (sym_call, STATE 6845), (sym_mlir_type, STATE 7017),
    (sym_list, STATE 7017), (sym_set, STATE 7017), (sym_tuple, STATE 7017),
    (sym_dictionary, STATE 7017), (sym_struct_literal, STATE 7017),
    (sym_list_comprehension, STATE 7017), (sym_dictionary_comprehension, STATE 7017),
    (sym_set_comprehension, STATE 7017), (sym_generator_expression, STATE 7017),
    (sym_parenthesized_expression, STATE 7017), (sym_conditional_expression, STATE 7969),
    (sym_concatenated_string, STATE 7017), (sym_string, STATE 6751), (sym_await, STATE 7017),
    (aux_sym_module_repeat1, STATE 925), (aux_sym_decorated_definition_repeat1, STATE 3670),
    (sym_identifier, ACTIONS 9), (anon_sym_import, ACTIONS 11), (anon_sym_from, ACTIONS 13),
    (anon_sym_LPAREN, ACTIONS 15), (anon_sym_STAR, ACTIONS 17), (anon_sym_print, ACTIONS 19),
    (anon_sym_comptime, ACTIONS 99), (anon_sym_assert, ACTIONS 23),
    (anon_sym___comptime_assert, ACTIONS 25), (anon_sym_return, ACTIONS 27),
    (anon_sym_del, ACTIONS 29), (anon_sym_raise, ACTIONS 31), (anon_sym_pass, ACTIONS 33),
    (anon_sym_break, ACTIONS 35), (anon_sym_continue, ACTIONS 37),
    (anon_sym___extension, ACTIONS 101), (anon_sym___mlir_region, ACTIONS 103),
    (anon_sym_if, ACTIONS 105), (anon_sym_match, ACTIONS 107), (anon_sym_async, ACTIONS 109),
    (anon_sym_for, ACTIONS 111), (anon_sym_while, ACTIONS 113), (anon_sym_try, ACTIONS 115),
    (anon_sym_with, ACTIONS 117), (anon_sym_def, ACTIONS 119), (anon_sym_fn, ACTIONS 119),
    (anon_sym_LBRACK, ACTIONS 59), (anon_sym_LBRACE, ACTIONS 61), (anon_sym_global, ACTIONS 63),
    (anon_sym_nonlocal, ACTIONS 65), (anon_sym_exec, ACTIONS 67), (anon_sym_type, ACTIONS 69),
    (anon_sym_class, ACTIONS 121), (anon_sym_struct, ACTIONS 121), (anon_sym_mut, ACTIONS 73),
    (anon_sym_out, ACTIONS 73), (anon_sym_trait, ACTIONS 123), (anon_sym_AT, ACTIONS 77),
    (anon_sym_DASH, ACTIONS 79), (anon_sym_PLUS, ACTIONS 79), (anon_sym_ref, ACTIONS 81),
    (anon_sym_var, ACTIONS 81), (anon_sym_not, ACTIONS 83), (anon_sym_TILDE, ACTIONS 79),
    (anon_sym_lambda, ACTIONS 85), (anon_sym_yield, ACTIONS 87), (sym_ellipsis, ACTIONS 89),
    (anon_sym___mlir_type, ACTIONS 91), (sym_integer, ACTIONS 93), (sym_float, ACTIONS 89),
    (anon_sym_await, ACTIONS 95), (sym_true, ACTIONS 93), (sym_false, ACTIONS 93),
    (sym_none, ACTIONS 93), (sym_comment, ACTIONS 3), (sym_line_continuation, ACTIONS 3),
    (sym__dedent, ACTIONS 129), (sym_string_start, ACTIONS 97)]"

definition parse_table_432 :: "(nat \<times> nat) list" where "parse_table_432 = [
    (sym__statement, STATE 925), (sym__simple_statements, STATE 925),
    (sym_import_statement, STATE 11814), (sym_future_import_statement, STATE 11814),
    (sym_import_from_statement, STATE 11814), (sym_print_statement, STATE 11814),
    (sym_assert_statement, STATE 11814), (sym_comptime_assert_statement, STATE 11814),
    (sym_expression_statement, STATE 11814), (sym_tuple_expression, STATE 12425),
    (sym_named_expression, STATE 7969), (sym__named_expression_lhs, STATE 12752),
    (sym_return_statement, STATE 11814), (sym_delete_statement, STATE 11814),
    (sym_raise_statement, STATE 11814), (sym_pass_statement, STATE 11814),
    (sym_break_statement, STATE 11814), (sym_continue_statement, STATE 11814),
    (sym_extension_definition, STATE 925), (sym_mlir_region, STATE 925),
    (sym_comptime_statement, STATE 925), (sym_if_statement, STATE 925),
    (sym_match_statement, STATE 925), (sym_for_statement, STATE 925),
    (sym_while_statement, STATE 925), (sym_try_statement, STATE 925),
    (sym_with_statement, STATE 925), (sym_function_definition, STATE 925),
    (sym_global_statement, STATE 11814), (sym_nonlocal_statement, STATE 11814),
    (sym_exec_statement, STATE 11814), (sym_type_alias_statement, STATE 11814),
    (sym_parameterized_alias_statement, STATE 11814), (sym_class_definition, STATE 925),
    (sym_trait_definition, STATE 925), (sym_decorated_definition, STATE 925),
    (sym_decorator, STATE 3670), (sym_block, STATE 6710), (sym_pattern, STATE 8086),
    (sym_tuple_pattern, STATE 8101), (sym_list_pattern, STATE 8101),
    (sym_list_splat_pattern, STATE 6819), (sym_as_pattern, STATE 7969),
    (sym_expression, STATE 9883), (sym_primary_expression, STATE 7326),
    (sym_comptime_expression, STATE 7017), (sym_transfer_expression, STATE 7017),
    (sym_not_operator, STATE 7969), (sym_boolean_operator, STATE 7969),
    (sym_binary_operator, STATE 7017), (sym_unary_operator, STATE 7017),
    (sym_comparison_operator, STATE 7969), (sym_lambda, STATE 7969),
    (sym_assignment, STATE 12425), (sym_augmented_assignment, STATE 12425),
    (sym_pattern_list, STATE 8578), (sym_yield, STATE 12425), (sym_attribute, STATE 6836),
    (sym_subscript, STATE 6838), (sym_call, STATE 6845), (sym_mlir_type, STATE 7017),
    (sym_list, STATE 7017), (sym_set, STATE 7017), (sym_tuple, STATE 7017),
    (sym_dictionary, STATE 7017), (sym_struct_literal, STATE 7017),
    (sym_list_comprehension, STATE 7017), (sym_dictionary_comprehension, STATE 7017),
    (sym_set_comprehension, STATE 7017), (sym_generator_expression, STATE 7017),
    (sym_parenthesized_expression, STATE 7017), (sym_conditional_expression, STATE 7969),
    (sym_concatenated_string, STATE 7017), (sym_string, STATE 6751), (sym_await, STATE 7017),
    (aux_sym_module_repeat1, STATE 925), (aux_sym_decorated_definition_repeat1, STATE 3670),
    (sym_identifier, ACTIONS 9), (anon_sym_import, ACTIONS 11), (anon_sym_from, ACTIONS 13),
    (anon_sym_LPAREN, ACTIONS 15), (anon_sym_STAR, ACTIONS 17), (anon_sym_print, ACTIONS 19),
    (anon_sym_comptime, ACTIONS 99), (anon_sym_assert, ACTIONS 23),
    (anon_sym___comptime_assert, ACTIONS 25), (anon_sym_return, ACTIONS 27),
    (anon_sym_del, ACTIONS 29), (anon_sym_raise, ACTIONS 31), (anon_sym_pass, ACTIONS 33),
    (anon_sym_break, ACTIONS 35), (anon_sym_continue, ACTIONS 37),
    (anon_sym___extension, ACTIONS 101), (anon_sym___mlir_region, ACTIONS 103),
    (anon_sym_if, ACTIONS 105), (anon_sym_match, ACTIONS 107), (anon_sym_async, ACTIONS 109),
    (anon_sym_for, ACTIONS 111), (anon_sym_while, ACTIONS 113), (anon_sym_try, ACTIONS 115),
    (anon_sym_with, ACTIONS 117), (anon_sym_def, ACTIONS 119), (anon_sym_fn, ACTIONS 119),
    (anon_sym_LBRACK, ACTIONS 59), (anon_sym_LBRACE, ACTIONS 61), (anon_sym_global, ACTIONS 63),
    (anon_sym_nonlocal, ACTIONS 65), (anon_sym_exec, ACTIONS 67), (anon_sym_type, ACTIONS 69),
    (anon_sym_class, ACTIONS 121), (anon_sym_struct, ACTIONS 121), (anon_sym_mut, ACTIONS 73),
    (anon_sym_out, ACTIONS 73), (anon_sym_trait, ACTIONS 123), (anon_sym_AT, ACTIONS 77),
    (anon_sym_DASH, ACTIONS 79), (anon_sym_PLUS, ACTIONS 79), (anon_sym_ref, ACTIONS 81),
    (anon_sym_var, ACTIONS 81), (anon_sym_not, ACTIONS 83), (anon_sym_TILDE, ACTIONS 79),
    (anon_sym_lambda, ACTIONS 85), (anon_sym_yield, ACTIONS 87), (sym_ellipsis, ACTIONS 89),
    (anon_sym___mlir_type, ACTIONS 91), (sym_integer, ACTIONS 93), (sym_float, ACTIONS 89),
    (anon_sym_await, ACTIONS 95), (sym_true, ACTIONS 93), (sym_false, ACTIONS 93),
    (sym_none, ACTIONS 93), (sym_comment, ACTIONS 3), (sym_line_continuation, ACTIONS 3),
    (sym__dedent, ACTIONS 129), (sym_string_start, ACTIONS 97)]"

definition parse_table_433 :: "(nat \<times> nat) list" where "parse_table_433 = [
    (sym__statement, STATE 925), (sym__simple_statements, STATE 925),
    (sym_import_statement, STATE 11814), (sym_future_import_statement, STATE 11814),
    (sym_import_from_statement, STATE 11814), (sym_print_statement, STATE 11814),
    (sym_assert_statement, STATE 11814), (sym_comptime_assert_statement, STATE 11814),
    (sym_expression_statement, STATE 11814), (sym_tuple_expression, STATE 12425),
    (sym_named_expression, STATE 7969), (sym__named_expression_lhs, STATE 12752),
    (sym_return_statement, STATE 11814), (sym_delete_statement, STATE 11814),
    (sym_raise_statement, STATE 11814), (sym_pass_statement, STATE 11814),
    (sym_break_statement, STATE 11814), (sym_continue_statement, STATE 11814),
    (sym_extension_definition, STATE 925), (sym_mlir_region, STATE 925),
    (sym_comptime_statement, STATE 925), (sym_if_statement, STATE 925),
    (sym_match_statement, STATE 925), (sym_for_statement, STATE 925),
    (sym_while_statement, STATE 925), (sym_try_statement, STATE 925),
    (sym_with_statement, STATE 925), (sym_function_definition, STATE 925),
    (sym_global_statement, STATE 11814), (sym_nonlocal_statement, STATE 11814),
    (sym_exec_statement, STATE 11814), (sym_type_alias_statement, STATE 11814),
    (sym_parameterized_alias_statement, STATE 11814), (sym_class_definition, STATE 925),
    (sym_trait_definition, STATE 925), (sym_decorated_definition, STATE 925),
    (sym_decorator, STATE 3670), (sym_block, STATE 6711), (sym_pattern, STATE 8086),
    (sym_tuple_pattern, STATE 8101), (sym_list_pattern, STATE 8101),
    (sym_list_splat_pattern, STATE 6819), (sym_as_pattern, STATE 7969),
    (sym_expression, STATE 9883), (sym_primary_expression, STATE 7326),
    (sym_comptime_expression, STATE 7017), (sym_transfer_expression, STATE 7017),
    (sym_not_operator, STATE 7969), (sym_boolean_operator, STATE 7969),
    (sym_binary_operator, STATE 7017), (sym_unary_operator, STATE 7017),
    (sym_comparison_operator, STATE 7969), (sym_lambda, STATE 7969),
    (sym_assignment, STATE 12425), (sym_augmented_assignment, STATE 12425),
    (sym_pattern_list, STATE 8578), (sym_yield, STATE 12425), (sym_attribute, STATE 6836),
    (sym_subscript, STATE 6838), (sym_call, STATE 6845), (sym_mlir_type, STATE 7017),
    (sym_list, STATE 7017), (sym_set, STATE 7017), (sym_tuple, STATE 7017),
    (sym_dictionary, STATE 7017), (sym_struct_literal, STATE 7017),
    (sym_list_comprehension, STATE 7017), (sym_dictionary_comprehension, STATE 7017),
    (sym_set_comprehension, STATE 7017), (sym_generator_expression, STATE 7017),
    (sym_parenthesized_expression, STATE 7017), (sym_conditional_expression, STATE 7969),
    (sym_concatenated_string, STATE 7017), (sym_string, STATE 6751), (sym_await, STATE 7017),
    (aux_sym_module_repeat1, STATE 925), (aux_sym_decorated_definition_repeat1, STATE 3670),
    (sym_identifier, ACTIONS 9), (anon_sym_import, ACTIONS 11), (anon_sym_from, ACTIONS 13),
    (anon_sym_LPAREN, ACTIONS 15), (anon_sym_STAR, ACTIONS 17), (anon_sym_print, ACTIONS 19),
    (anon_sym_comptime, ACTIONS 99), (anon_sym_assert, ACTIONS 23),
    (anon_sym___comptime_assert, ACTIONS 25), (anon_sym_return, ACTIONS 27),
    (anon_sym_del, ACTIONS 29), (anon_sym_raise, ACTIONS 31), (anon_sym_pass, ACTIONS 33),
    (anon_sym_break, ACTIONS 35), (anon_sym_continue, ACTIONS 37),
    (anon_sym___extension, ACTIONS 101), (anon_sym___mlir_region, ACTIONS 103),
    (anon_sym_if, ACTIONS 105), (anon_sym_match, ACTIONS 107), (anon_sym_async, ACTIONS 109),
    (anon_sym_for, ACTIONS 111), (anon_sym_while, ACTIONS 113), (anon_sym_try, ACTIONS 115),
    (anon_sym_with, ACTIONS 117), (anon_sym_def, ACTIONS 119), (anon_sym_fn, ACTIONS 119),
    (anon_sym_LBRACK, ACTIONS 59), (anon_sym_LBRACE, ACTIONS 61), (anon_sym_global, ACTIONS 63),
    (anon_sym_nonlocal, ACTIONS 65), (anon_sym_exec, ACTIONS 67), (anon_sym_type, ACTIONS 69),
    (anon_sym_class, ACTIONS 121), (anon_sym_struct, ACTIONS 121), (anon_sym_mut, ACTIONS 73),
    (anon_sym_out, ACTIONS 73), (anon_sym_trait, ACTIONS 123), (anon_sym_AT, ACTIONS 77),
    (anon_sym_DASH, ACTIONS 79), (anon_sym_PLUS, ACTIONS 79), (anon_sym_ref, ACTIONS 81),
    (anon_sym_var, ACTIONS 81), (anon_sym_not, ACTIONS 83), (anon_sym_TILDE, ACTIONS 79),
    (anon_sym_lambda, ACTIONS 85), (anon_sym_yield, ACTIONS 87), (sym_ellipsis, ACTIONS 89),
    (anon_sym___mlir_type, ACTIONS 91), (sym_integer, ACTIONS 93), (sym_float, ACTIONS 89),
    (anon_sym_await, ACTIONS 95), (sym_true, ACTIONS 93), (sym_false, ACTIONS 93),
    (sym_none, ACTIONS 93), (sym_comment, ACTIONS 3), (sym_line_continuation, ACTIONS 3),
    (sym__dedent, ACTIONS 129), (sym_string_start, ACTIONS 97)]"

definition parse_table_434 :: "(nat \<times> nat) list" where "parse_table_434 = [
    (sym__statement, STATE 925), (sym__simple_statements, STATE 925),
    (sym_import_statement, STATE 11814), (sym_future_import_statement, STATE 11814),
    (sym_import_from_statement, STATE 11814), (sym_print_statement, STATE 11814),
    (sym_assert_statement, STATE 11814), (sym_comptime_assert_statement, STATE 11814),
    (sym_expression_statement, STATE 11814), (sym_tuple_expression, STATE 12425),
    (sym_named_expression, STATE 7969), (sym__named_expression_lhs, STATE 12752),
    (sym_return_statement, STATE 11814), (sym_delete_statement, STATE 11814),
    (sym_raise_statement, STATE 11814), (sym_pass_statement, STATE 11814),
    (sym_break_statement, STATE 11814), (sym_continue_statement, STATE 11814),
    (sym_extension_definition, STATE 925), (sym_mlir_region, STATE 925),
    (sym_comptime_statement, STATE 925), (sym_if_statement, STATE 925),
    (sym_match_statement, STATE 925), (sym_for_statement, STATE 925),
    (sym_while_statement, STATE 925), (sym_try_statement, STATE 925),
    (sym_with_statement, STATE 925), (sym_function_definition, STATE 925),
    (sym_global_statement, STATE 11814), (sym_nonlocal_statement, STATE 11814),
    (sym_exec_statement, STATE 11814), (sym_type_alias_statement, STATE 11814),
    (sym_parameterized_alias_statement, STATE 11814), (sym_class_definition, STATE 925),
    (sym_trait_definition, STATE 925), (sym_decorated_definition, STATE 925),
    (sym_decorator, STATE 3670), (sym_block, STATE 6712), (sym_pattern, STATE 8086),
    (sym_tuple_pattern, STATE 8101), (sym_list_pattern, STATE 8101),
    (sym_list_splat_pattern, STATE 6819), (sym_as_pattern, STATE 7969),
    (sym_expression, STATE 9883), (sym_primary_expression, STATE 7326),
    (sym_comptime_expression, STATE 7017), (sym_transfer_expression, STATE 7017),
    (sym_not_operator, STATE 7969), (sym_boolean_operator, STATE 7969),
    (sym_binary_operator, STATE 7017), (sym_unary_operator, STATE 7017),
    (sym_comparison_operator, STATE 7969), (sym_lambda, STATE 7969),
    (sym_assignment, STATE 12425), (sym_augmented_assignment, STATE 12425),
    (sym_pattern_list, STATE 8578), (sym_yield, STATE 12425), (sym_attribute, STATE 6836),
    (sym_subscript, STATE 6838), (sym_call, STATE 6845), (sym_mlir_type, STATE 7017),
    (sym_list, STATE 7017), (sym_set, STATE 7017), (sym_tuple, STATE 7017),
    (sym_dictionary, STATE 7017), (sym_struct_literal, STATE 7017),
    (sym_list_comprehension, STATE 7017), (sym_dictionary_comprehension, STATE 7017),
    (sym_set_comprehension, STATE 7017), (sym_generator_expression, STATE 7017),
    (sym_parenthesized_expression, STATE 7017), (sym_conditional_expression, STATE 7969),
    (sym_concatenated_string, STATE 7017), (sym_string, STATE 6751), (sym_await, STATE 7017),
    (aux_sym_module_repeat1, STATE 925), (aux_sym_decorated_definition_repeat1, STATE 3670),
    (sym_identifier, ACTIONS 9), (anon_sym_import, ACTIONS 11), (anon_sym_from, ACTIONS 13),
    (anon_sym_LPAREN, ACTIONS 15), (anon_sym_STAR, ACTIONS 17), (anon_sym_print, ACTIONS 19),
    (anon_sym_comptime, ACTIONS 99), (anon_sym_assert, ACTIONS 23),
    (anon_sym___comptime_assert, ACTIONS 25), (anon_sym_return, ACTIONS 27),
    (anon_sym_del, ACTIONS 29), (anon_sym_raise, ACTIONS 31), (anon_sym_pass, ACTIONS 33),
    (anon_sym_break, ACTIONS 35), (anon_sym_continue, ACTIONS 37),
    (anon_sym___extension, ACTIONS 101), (anon_sym___mlir_region, ACTIONS 103),
    (anon_sym_if, ACTIONS 105), (anon_sym_match, ACTIONS 107), (anon_sym_async, ACTIONS 109),
    (anon_sym_for, ACTIONS 111), (anon_sym_while, ACTIONS 113), (anon_sym_try, ACTIONS 115),
    (anon_sym_with, ACTIONS 117), (anon_sym_def, ACTIONS 119), (anon_sym_fn, ACTIONS 119),
    (anon_sym_LBRACK, ACTIONS 59), (anon_sym_LBRACE, ACTIONS 61), (anon_sym_global, ACTIONS 63),
    (anon_sym_nonlocal, ACTIONS 65), (anon_sym_exec, ACTIONS 67), (anon_sym_type, ACTIONS 69),
    (anon_sym_class, ACTIONS 121), (anon_sym_struct, ACTIONS 121), (anon_sym_mut, ACTIONS 73),
    (anon_sym_out, ACTIONS 73), (anon_sym_trait, ACTIONS 123), (anon_sym_AT, ACTIONS 77),
    (anon_sym_DASH, ACTIONS 79), (anon_sym_PLUS, ACTIONS 79), (anon_sym_ref, ACTIONS 81),
    (anon_sym_var, ACTIONS 81), (anon_sym_not, ACTIONS 83), (anon_sym_TILDE, ACTIONS 79),
    (anon_sym_lambda, ACTIONS 85), (anon_sym_yield, ACTIONS 87), (sym_ellipsis, ACTIONS 89),
    (anon_sym___mlir_type, ACTIONS 91), (sym_integer, ACTIONS 93), (sym_float, ACTIONS 89),
    (anon_sym_await, ACTIONS 95), (sym_true, ACTIONS 93), (sym_false, ACTIONS 93),
    (sym_none, ACTIONS 93), (sym_comment, ACTIONS 3), (sym_line_continuation, ACTIONS 3),
    (sym__dedent, ACTIONS 129), (sym_string_start, ACTIONS 97)]"

definition parse_table_435 :: "(nat \<times> nat) list" where "parse_table_435 = [
    (sym__statement, STATE 925), (sym__simple_statements, STATE 925),
    (sym_import_statement, STATE 11814), (sym_future_import_statement, STATE 11814),
    (sym_import_from_statement, STATE 11814), (sym_print_statement, STATE 11814),
    (sym_assert_statement, STATE 11814), (sym_comptime_assert_statement, STATE 11814),
    (sym_expression_statement, STATE 11814), (sym_tuple_expression, STATE 12425),
    (sym_named_expression, STATE 7969), (sym__named_expression_lhs, STATE 12752),
    (sym_return_statement, STATE 11814), (sym_delete_statement, STATE 11814),
    (sym_raise_statement, STATE 11814), (sym_pass_statement, STATE 11814),
    (sym_break_statement, STATE 11814), (sym_continue_statement, STATE 11814),
    (sym_extension_definition, STATE 925), (sym_mlir_region, STATE 925),
    (sym_comptime_statement, STATE 925), (sym_if_statement, STATE 925),
    (sym_match_statement, STATE 925), (sym_for_statement, STATE 925),
    (sym_while_statement, STATE 925), (sym_try_statement, STATE 925),
    (sym_with_statement, STATE 925), (sym_function_definition, STATE 925),
    (sym_global_statement, STATE 11814), (sym_nonlocal_statement, STATE 11814),
    (sym_exec_statement, STATE 11814), (sym_type_alias_statement, STATE 11814),
    (sym_parameterized_alias_statement, STATE 11814), (sym_class_definition, STATE 925),
    (sym_trait_definition, STATE 925), (sym_decorated_definition, STATE 925),
    (sym_decorator, STATE 3670), (sym_block, STATE 6713), (sym_pattern, STATE 8086),
    (sym_tuple_pattern, STATE 8101), (sym_list_pattern, STATE 8101),
    (sym_list_splat_pattern, STATE 6819), (sym_as_pattern, STATE 7969),
    (sym_expression, STATE 9883), (sym_primary_expression, STATE 7326),
    (sym_comptime_expression, STATE 7017), (sym_transfer_expression, STATE 7017),
    (sym_not_operator, STATE 7969), (sym_boolean_operator, STATE 7969),
    (sym_binary_operator, STATE 7017), (sym_unary_operator, STATE 7017),
    (sym_comparison_operator, STATE 7969), (sym_lambda, STATE 7969),
    (sym_assignment, STATE 12425), (sym_augmented_assignment, STATE 12425),
    (sym_pattern_list, STATE 8578), (sym_yield, STATE 12425), (sym_attribute, STATE 6836),
    (sym_subscript, STATE 6838), (sym_call, STATE 6845), (sym_mlir_type, STATE 7017),
    (sym_list, STATE 7017), (sym_set, STATE 7017), (sym_tuple, STATE 7017),
    (sym_dictionary, STATE 7017), (sym_struct_literal, STATE 7017),
    (sym_list_comprehension, STATE 7017), (sym_dictionary_comprehension, STATE 7017),
    (sym_set_comprehension, STATE 7017), (sym_generator_expression, STATE 7017),
    (sym_parenthesized_expression, STATE 7017), (sym_conditional_expression, STATE 7969),
    (sym_concatenated_string, STATE 7017), (sym_string, STATE 6751), (sym_await, STATE 7017),
    (aux_sym_module_repeat1, STATE 925), (aux_sym_decorated_definition_repeat1, STATE 3670),
    (sym_identifier, ACTIONS 9), (anon_sym_import, ACTIONS 11), (anon_sym_from, ACTIONS 13),
    (anon_sym_LPAREN, ACTIONS 15), (anon_sym_STAR, ACTIONS 17), (anon_sym_print, ACTIONS 19),
    (anon_sym_comptime, ACTIONS 99), (anon_sym_assert, ACTIONS 23),
    (anon_sym___comptime_assert, ACTIONS 25), (anon_sym_return, ACTIONS 27),
    (anon_sym_del, ACTIONS 29), (anon_sym_raise, ACTIONS 31), (anon_sym_pass, ACTIONS 33),
    (anon_sym_break, ACTIONS 35), (anon_sym_continue, ACTIONS 37),
    (anon_sym___extension, ACTIONS 101), (anon_sym___mlir_region, ACTIONS 103),
    (anon_sym_if, ACTIONS 105), (anon_sym_match, ACTIONS 107), (anon_sym_async, ACTIONS 109),
    (anon_sym_for, ACTIONS 111), (anon_sym_while, ACTIONS 113), (anon_sym_try, ACTIONS 115),
    (anon_sym_with, ACTIONS 117), (anon_sym_def, ACTIONS 119), (anon_sym_fn, ACTIONS 119),
    (anon_sym_LBRACK, ACTIONS 59), (anon_sym_LBRACE, ACTIONS 61), (anon_sym_global, ACTIONS 63),
    (anon_sym_nonlocal, ACTIONS 65), (anon_sym_exec, ACTIONS 67), (anon_sym_type, ACTIONS 69),
    (anon_sym_class, ACTIONS 121), (anon_sym_struct, ACTIONS 121), (anon_sym_mut, ACTIONS 73),
    (anon_sym_out, ACTIONS 73), (anon_sym_trait, ACTIONS 123), (anon_sym_AT, ACTIONS 77),
    (anon_sym_DASH, ACTIONS 79), (anon_sym_PLUS, ACTIONS 79), (anon_sym_ref, ACTIONS 81),
    (anon_sym_var, ACTIONS 81), (anon_sym_not, ACTIONS 83), (anon_sym_TILDE, ACTIONS 79),
    (anon_sym_lambda, ACTIONS 85), (anon_sym_yield, ACTIONS 87), (sym_ellipsis, ACTIONS 89),
    (anon_sym___mlir_type, ACTIONS 91), (sym_integer, ACTIONS 93), (sym_float, ACTIONS 89),
    (anon_sym_await, ACTIONS 95), (sym_true, ACTIONS 93), (sym_false, ACTIONS 93),
    (sym_none, ACTIONS 93), (sym_comment, ACTIONS 3), (sym_line_continuation, ACTIONS 3),
    (sym__dedent, ACTIONS 129), (sym_string_start, ACTIONS 97)]"

definition parse_table_436 :: "(nat \<times> nat) list" where "parse_table_436 = [
    (sym__statement, STATE 925), (sym__simple_statements, STATE 925),
    (sym_import_statement, STATE 11814), (sym_future_import_statement, STATE 11814),
    (sym_import_from_statement, STATE 11814), (sym_print_statement, STATE 11814),
    (sym_assert_statement, STATE 11814), (sym_comptime_assert_statement, STATE 11814),
    (sym_expression_statement, STATE 11814), (sym_tuple_expression, STATE 12425),
    (sym_named_expression, STATE 7969), (sym__named_expression_lhs, STATE 12752),
    (sym_return_statement, STATE 11814), (sym_delete_statement, STATE 11814),
    (sym_raise_statement, STATE 11814), (sym_pass_statement, STATE 11814),
    (sym_break_statement, STATE 11814), (sym_continue_statement, STATE 11814),
    (sym_extension_definition, STATE 925), (sym_mlir_region, STATE 925),
    (sym_comptime_statement, STATE 925), (sym_if_statement, STATE 925),
    (sym_match_statement, STATE 925), (sym_for_statement, STATE 925),
    (sym_while_statement, STATE 925), (sym_try_statement, STATE 925),
    (sym_with_statement, STATE 925), (sym_function_definition, STATE 925),
    (sym_global_statement, STATE 11814), (sym_nonlocal_statement, STATE 11814),
    (sym_exec_statement, STATE 11814), (sym_type_alias_statement, STATE 11814),
    (sym_parameterized_alias_statement, STATE 11814), (sym_class_definition, STATE 925),
    (sym_trait_definition, STATE 925), (sym_decorated_definition, STATE 925),
    (sym_decorator, STATE 3670), (sym_block, STATE 4615), (sym_pattern, STATE 8086),
    (sym_tuple_pattern, STATE 8101), (sym_list_pattern, STATE 8101),
    (sym_list_splat_pattern, STATE 6819), (sym_as_pattern, STATE 7969),
    (sym_expression, STATE 9883), (sym_primary_expression, STATE 7326),
    (sym_comptime_expression, STATE 7017), (sym_transfer_expression, STATE 7017),
    (sym_not_operator, STATE 7969), (sym_boolean_operator, STATE 7969),
    (sym_binary_operator, STATE 7017), (sym_unary_operator, STATE 7017),
    (sym_comparison_operator, STATE 7969), (sym_lambda, STATE 7969),
    (sym_assignment, STATE 12425), (sym_augmented_assignment, STATE 12425),
    (sym_pattern_list, STATE 8578), (sym_yield, STATE 12425), (sym_attribute, STATE 6836),
    (sym_subscript, STATE 6838), (sym_call, STATE 6845), (sym_mlir_type, STATE 7017),
    (sym_list, STATE 7017), (sym_set, STATE 7017), (sym_tuple, STATE 7017),
    (sym_dictionary, STATE 7017), (sym_struct_literal, STATE 7017),
    (sym_list_comprehension, STATE 7017), (sym_dictionary_comprehension, STATE 7017),
    (sym_set_comprehension, STATE 7017), (sym_generator_expression, STATE 7017),
    (sym_parenthesized_expression, STATE 7017), (sym_conditional_expression, STATE 7969),
    (sym_concatenated_string, STATE 7017), (sym_string, STATE 6751), (sym_await, STATE 7017),
    (aux_sym_module_repeat1, STATE 925), (aux_sym_decorated_definition_repeat1, STATE 3670),
    (sym_identifier, ACTIONS 9), (anon_sym_import, ACTIONS 11), (anon_sym_from, ACTIONS 13),
    (anon_sym_LPAREN, ACTIONS 15), (anon_sym_STAR, ACTIONS 17), (anon_sym_print, ACTIONS 19),
    (anon_sym_comptime, ACTIONS 99), (anon_sym_assert, ACTIONS 23),
    (anon_sym___comptime_assert, ACTIONS 25), (anon_sym_return, ACTIONS 27),
    (anon_sym_del, ACTIONS 29), (anon_sym_raise, ACTIONS 31), (anon_sym_pass, ACTIONS 33),
    (anon_sym_break, ACTIONS 35), (anon_sym_continue, ACTIONS 37),
    (anon_sym___extension, ACTIONS 101), (anon_sym___mlir_region, ACTIONS 103),
    (anon_sym_if, ACTIONS 105), (anon_sym_match, ACTIONS 107), (anon_sym_async, ACTIONS 109),
    (anon_sym_for, ACTIONS 111), (anon_sym_while, ACTIONS 113), (anon_sym_try, ACTIONS 115),
    (anon_sym_with, ACTIONS 117), (anon_sym_def, ACTIONS 119), (anon_sym_fn, ACTIONS 119),
    (anon_sym_LBRACK, ACTIONS 59), (anon_sym_LBRACE, ACTIONS 61), (anon_sym_global, ACTIONS 63),
    (anon_sym_nonlocal, ACTIONS 65), (anon_sym_exec, ACTIONS 67), (anon_sym_type, ACTIONS 69),
    (anon_sym_class, ACTIONS 121), (anon_sym_struct, ACTIONS 121), (anon_sym_mut, ACTIONS 73),
    (anon_sym_out, ACTIONS 73), (anon_sym_trait, ACTIONS 123), (anon_sym_AT, ACTIONS 77),
    (anon_sym_DASH, ACTIONS 79), (anon_sym_PLUS, ACTIONS 79), (anon_sym_ref, ACTIONS 81),
    (anon_sym_var, ACTIONS 81), (anon_sym_not, ACTIONS 83), (anon_sym_TILDE, ACTIONS 79),
    (anon_sym_lambda, ACTIONS 85), (anon_sym_yield, ACTIONS 87), (sym_ellipsis, ACTIONS 89),
    (anon_sym___mlir_type, ACTIONS 91), (sym_integer, ACTIONS 93), (sym_float, ACTIONS 89),
    (anon_sym_await, ACTIONS 95), (sym_true, ACTIONS 93), (sym_false, ACTIONS 93),
    (sym_none, ACTIONS 93), (sym_comment, ACTIONS 3), (sym_line_continuation, ACTIONS 3),
    (sym__dedent, ACTIONS 129), (sym_string_start, ACTIONS 97)]"

definition parse_table_437 :: "(nat \<times> nat) list" where "parse_table_437 = [
    (sym__statement, STATE 925), (sym__simple_statements, STATE 925),
    (sym_import_statement, STATE 11814), (sym_future_import_statement, STATE 11814),
    (sym_import_from_statement, STATE 11814), (sym_print_statement, STATE 11814),
    (sym_assert_statement, STATE 11814), (sym_comptime_assert_statement, STATE 11814),
    (sym_expression_statement, STATE 11814), (sym_tuple_expression, STATE 12425),
    (sym_named_expression, STATE 7969), (sym__named_expression_lhs, STATE 12752),
    (sym_return_statement, STATE 11814), (sym_delete_statement, STATE 11814),
    (sym_raise_statement, STATE 11814), (sym_pass_statement, STATE 11814),
    (sym_break_statement, STATE 11814), (sym_continue_statement, STATE 11814),
    (sym_extension_definition, STATE 925), (sym_mlir_region, STATE 925),
    (sym_comptime_statement, STATE 925), (sym_if_statement, STATE 925),
    (sym_match_statement, STATE 925), (sym_for_statement, STATE 925),
    (sym_while_statement, STATE 925), (sym_try_statement, STATE 925),
    (sym_with_statement, STATE 925), (sym_function_definition, STATE 925),
    (sym_global_statement, STATE 11814), (sym_nonlocal_statement, STATE 11814),
    (sym_exec_statement, STATE 11814), (sym_type_alias_statement, STATE 11814),
    (sym_parameterized_alias_statement, STATE 11814), (sym_class_definition, STATE 925),
    (sym_trait_definition, STATE 925), (sym_decorated_definition, STATE 925),
    (sym_decorator, STATE 3670), (sym_block, STATE 4728), (sym_pattern, STATE 8086),
    (sym_tuple_pattern, STATE 8101), (sym_list_pattern, STATE 8101),
    (sym_list_splat_pattern, STATE 6819), (sym_as_pattern, STATE 7969),
    (sym_expression, STATE 9883), (sym_primary_expression, STATE 7326),
    (sym_comptime_expression, STATE 7017), (sym_transfer_expression, STATE 7017),
    (sym_not_operator, STATE 7969), (sym_boolean_operator, STATE 7969),
    (sym_binary_operator, STATE 7017), (sym_unary_operator, STATE 7017),
    (sym_comparison_operator, STATE 7969), (sym_lambda, STATE 7969),
    (sym_assignment, STATE 12425), (sym_augmented_assignment, STATE 12425),
    (sym_pattern_list, STATE 8578), (sym_yield, STATE 12425), (sym_attribute, STATE 6836),
    (sym_subscript, STATE 6838), (sym_call, STATE 6845), (sym_mlir_type, STATE 7017),
    (sym_list, STATE 7017), (sym_set, STATE 7017), (sym_tuple, STATE 7017),
    (sym_dictionary, STATE 7017), (sym_struct_literal, STATE 7017),
    (sym_list_comprehension, STATE 7017), (sym_dictionary_comprehension, STATE 7017),
    (sym_set_comprehension, STATE 7017), (sym_generator_expression, STATE 7017),
    (sym_parenthesized_expression, STATE 7017), (sym_conditional_expression, STATE 7969),
    (sym_concatenated_string, STATE 7017), (sym_string, STATE 6751), (sym_await, STATE 7017),
    (aux_sym_module_repeat1, STATE 925), (aux_sym_decorated_definition_repeat1, STATE 3670),
    (sym_identifier, ACTIONS 9), (anon_sym_import, ACTIONS 11), (anon_sym_from, ACTIONS 13),
    (anon_sym_LPAREN, ACTIONS 15), (anon_sym_STAR, ACTIONS 17), (anon_sym_print, ACTIONS 19),
    (anon_sym_comptime, ACTIONS 99), (anon_sym_assert, ACTIONS 23),
    (anon_sym___comptime_assert, ACTIONS 25), (anon_sym_return, ACTIONS 27),
    (anon_sym_del, ACTIONS 29), (anon_sym_raise, ACTIONS 31), (anon_sym_pass, ACTIONS 33),
    (anon_sym_break, ACTIONS 35), (anon_sym_continue, ACTIONS 37),
    (anon_sym___extension, ACTIONS 101), (anon_sym___mlir_region, ACTIONS 103),
    (anon_sym_if, ACTIONS 105), (anon_sym_match, ACTIONS 107), (anon_sym_async, ACTIONS 109),
    (anon_sym_for, ACTIONS 111), (anon_sym_while, ACTIONS 113), (anon_sym_try, ACTIONS 115),
    (anon_sym_with, ACTIONS 117), (anon_sym_def, ACTIONS 119), (anon_sym_fn, ACTIONS 119),
    (anon_sym_LBRACK, ACTIONS 59), (anon_sym_LBRACE, ACTIONS 61), (anon_sym_global, ACTIONS 63),
    (anon_sym_nonlocal, ACTIONS 65), (anon_sym_exec, ACTIONS 67), (anon_sym_type, ACTIONS 69),
    (anon_sym_class, ACTIONS 121), (anon_sym_struct, ACTIONS 121), (anon_sym_mut, ACTIONS 73),
    (anon_sym_out, ACTIONS 73), (anon_sym_trait, ACTIONS 123), (anon_sym_AT, ACTIONS 77),
    (anon_sym_DASH, ACTIONS 79), (anon_sym_PLUS, ACTIONS 79), (anon_sym_ref, ACTIONS 81),
    (anon_sym_var, ACTIONS 81), (anon_sym_not, ACTIONS 83), (anon_sym_TILDE, ACTIONS 79),
    (anon_sym_lambda, ACTIONS 85), (anon_sym_yield, ACTIONS 87), (sym_ellipsis, ACTIONS 89),
    (anon_sym___mlir_type, ACTIONS 91), (sym_integer, ACTIONS 93), (sym_float, ACTIONS 89),
    (anon_sym_await, ACTIONS 95), (sym_true, ACTIONS 93), (sym_false, ACTIONS 93),
    (sym_none, ACTIONS 93), (sym_comment, ACTIONS 3), (sym_line_continuation, ACTIONS 3),
    (sym__dedent, ACTIONS 129), (sym_string_start, ACTIONS 97)]"

definition parse_table_438 :: "(nat \<times> nat) list" where "parse_table_438 = [
    (sym__statement, STATE 925), (sym__simple_statements, STATE 925),
    (sym_import_statement, STATE 11814), (sym_future_import_statement, STATE 11814),
    (sym_import_from_statement, STATE 11814), (sym_print_statement, STATE 11814),
    (sym_assert_statement, STATE 11814), (sym_comptime_assert_statement, STATE 11814),
    (sym_expression_statement, STATE 11814), (sym_tuple_expression, STATE 12425),
    (sym_named_expression, STATE 7969), (sym__named_expression_lhs, STATE 12752),
    (sym_return_statement, STATE 11814), (sym_delete_statement, STATE 11814),
    (sym_raise_statement, STATE 11814), (sym_pass_statement, STATE 11814),
    (sym_break_statement, STATE 11814), (sym_continue_statement, STATE 11814),
    (sym_extension_definition, STATE 925), (sym_mlir_region, STATE 925),
    (sym_comptime_statement, STATE 925), (sym_if_statement, STATE 925),
    (sym_match_statement, STATE 925), (sym_for_statement, STATE 925),
    (sym_while_statement, STATE 925), (sym_try_statement, STATE 925),
    (sym_with_statement, STATE 925), (sym_function_definition, STATE 925),
    (sym_global_statement, STATE 11814), (sym_nonlocal_statement, STATE 11814),
    (sym_exec_statement, STATE 11814), (sym_type_alias_statement, STATE 11814),
    (sym_parameterized_alias_statement, STATE 11814), (sym_class_definition, STATE 925),
    (sym_trait_definition, STATE 925), (sym_decorated_definition, STATE 925),
    (sym_decorator, STATE 3670), (sym_block, STATE 4793), (sym_pattern, STATE 8086),
    (sym_tuple_pattern, STATE 8101), (sym_list_pattern, STATE 8101),
    (sym_list_splat_pattern, STATE 6819), (sym_as_pattern, STATE 7969),
    (sym_expression, STATE 9883), (sym_primary_expression, STATE 7326),
    (sym_comptime_expression, STATE 7017), (sym_transfer_expression, STATE 7017),
    (sym_not_operator, STATE 7969), (sym_boolean_operator, STATE 7969),
    (sym_binary_operator, STATE 7017), (sym_unary_operator, STATE 7017),
    (sym_comparison_operator, STATE 7969), (sym_lambda, STATE 7969),
    (sym_assignment, STATE 12425), (sym_augmented_assignment, STATE 12425),
    (sym_pattern_list, STATE 8578), (sym_yield, STATE 12425), (sym_attribute, STATE 6836),
    (sym_subscript, STATE 6838), (sym_call, STATE 6845), (sym_mlir_type, STATE 7017),
    (sym_list, STATE 7017), (sym_set, STATE 7017), (sym_tuple, STATE 7017),
    (sym_dictionary, STATE 7017), (sym_struct_literal, STATE 7017),
    (sym_list_comprehension, STATE 7017), (sym_dictionary_comprehension, STATE 7017),
    (sym_set_comprehension, STATE 7017), (sym_generator_expression, STATE 7017),
    (sym_parenthesized_expression, STATE 7017), (sym_conditional_expression, STATE 7969),
    (sym_concatenated_string, STATE 7017), (sym_string, STATE 6751), (sym_await, STATE 7017),
    (aux_sym_module_repeat1, STATE 925), (aux_sym_decorated_definition_repeat1, STATE 3670),
    (sym_identifier, ACTIONS 9), (anon_sym_import, ACTIONS 11), (anon_sym_from, ACTIONS 13),
    (anon_sym_LPAREN, ACTIONS 15), (anon_sym_STAR, ACTIONS 17), (anon_sym_print, ACTIONS 19),
    (anon_sym_comptime, ACTIONS 99), (anon_sym_assert, ACTIONS 23),
    (anon_sym___comptime_assert, ACTIONS 25), (anon_sym_return, ACTIONS 27),
    (anon_sym_del, ACTIONS 29), (anon_sym_raise, ACTIONS 31), (anon_sym_pass, ACTIONS 33),
    (anon_sym_break, ACTIONS 35), (anon_sym_continue, ACTIONS 37),
    (anon_sym___extension, ACTIONS 101), (anon_sym___mlir_region, ACTIONS 103),
    (anon_sym_if, ACTIONS 105), (anon_sym_match, ACTIONS 107), (anon_sym_async, ACTIONS 109),
    (anon_sym_for, ACTIONS 111), (anon_sym_while, ACTIONS 113), (anon_sym_try, ACTIONS 115),
    (anon_sym_with, ACTIONS 117), (anon_sym_def, ACTIONS 119), (anon_sym_fn, ACTIONS 119),
    (anon_sym_LBRACK, ACTIONS 59), (anon_sym_LBRACE, ACTIONS 61), (anon_sym_global, ACTIONS 63),
    (anon_sym_nonlocal, ACTIONS 65), (anon_sym_exec, ACTIONS 67), (anon_sym_type, ACTIONS 69),
    (anon_sym_class, ACTIONS 121), (anon_sym_struct, ACTIONS 121), (anon_sym_mut, ACTIONS 73),
    (anon_sym_out, ACTIONS 73), (anon_sym_trait, ACTIONS 123), (anon_sym_AT, ACTIONS 77),
    (anon_sym_DASH, ACTIONS 79), (anon_sym_PLUS, ACTIONS 79), (anon_sym_ref, ACTIONS 81),
    (anon_sym_var, ACTIONS 81), (anon_sym_not, ACTIONS 83), (anon_sym_TILDE, ACTIONS 79),
    (anon_sym_lambda, ACTIONS 85), (anon_sym_yield, ACTIONS 87), (sym_ellipsis, ACTIONS 89),
    (anon_sym___mlir_type, ACTIONS 91), (sym_integer, ACTIONS 93), (sym_float, ACTIONS 89),
    (anon_sym_await, ACTIONS 95), (sym_true, ACTIONS 93), (sym_false, ACTIONS 93),
    (sym_none, ACTIONS 93), (sym_comment, ACTIONS 3), (sym_line_continuation, ACTIONS 3),
    (sym__dedent, ACTIONS 129), (sym_string_start, ACTIONS 97)]"

definition parse_table_439 :: "(nat \<times> nat) list" where "parse_table_439 = [
    (sym__statement, STATE 925), (sym__simple_statements, STATE 925),
    (sym_import_statement, STATE 11814), (sym_future_import_statement, STATE 11814),
    (sym_import_from_statement, STATE 11814), (sym_print_statement, STATE 11814),
    (sym_assert_statement, STATE 11814), (sym_comptime_assert_statement, STATE 11814),
    (sym_expression_statement, STATE 11814), (sym_tuple_expression, STATE 12425),
    (sym_named_expression, STATE 7969), (sym__named_expression_lhs, STATE 12752),
    (sym_return_statement, STATE 11814), (sym_delete_statement, STATE 11814),
    (sym_raise_statement, STATE 11814), (sym_pass_statement, STATE 11814),
    (sym_break_statement, STATE 11814), (sym_continue_statement, STATE 11814),
    (sym_extension_definition, STATE 925), (sym_mlir_region, STATE 925),
    (sym_comptime_statement, STATE 925), (sym_if_statement, STATE 925),
    (sym_match_statement, STATE 925), (sym_for_statement, STATE 925),
    (sym_while_statement, STATE 925), (sym_try_statement, STATE 925),
    (sym_with_statement, STATE 925), (sym_function_definition, STATE 925),
    (sym_global_statement, STATE 11814), (sym_nonlocal_statement, STATE 11814),
    (sym_exec_statement, STATE 11814), (sym_type_alias_statement, STATE 11814),
    (sym_parameterized_alias_statement, STATE 11814), (sym_class_definition, STATE 925),
    (sym_trait_definition, STATE 925), (sym_decorated_definition, STATE 925),
    (sym_decorator, STATE 3670), (sym_block, STATE 4794), (sym_pattern, STATE 8086),
    (sym_tuple_pattern, STATE 8101), (sym_list_pattern, STATE 8101),
    (sym_list_splat_pattern, STATE 6819), (sym_as_pattern, STATE 7969),
    (sym_expression, STATE 9883), (sym_primary_expression, STATE 7326),
    (sym_comptime_expression, STATE 7017), (sym_transfer_expression, STATE 7017),
    (sym_not_operator, STATE 7969), (sym_boolean_operator, STATE 7969),
    (sym_binary_operator, STATE 7017), (sym_unary_operator, STATE 7017),
    (sym_comparison_operator, STATE 7969), (sym_lambda, STATE 7969),
    (sym_assignment, STATE 12425), (sym_augmented_assignment, STATE 12425),
    (sym_pattern_list, STATE 8578), (sym_yield, STATE 12425), (sym_attribute, STATE 6836),
    (sym_subscript, STATE 6838), (sym_call, STATE 6845), (sym_mlir_type, STATE 7017),
    (sym_list, STATE 7017), (sym_set, STATE 7017), (sym_tuple, STATE 7017),
    (sym_dictionary, STATE 7017), (sym_struct_literal, STATE 7017),
    (sym_list_comprehension, STATE 7017), (sym_dictionary_comprehension, STATE 7017),
    (sym_set_comprehension, STATE 7017), (sym_generator_expression, STATE 7017),
    (sym_parenthesized_expression, STATE 7017), (sym_conditional_expression, STATE 7969),
    (sym_concatenated_string, STATE 7017), (sym_string, STATE 6751), (sym_await, STATE 7017),
    (aux_sym_module_repeat1, STATE 925), (aux_sym_decorated_definition_repeat1, STATE 3670),
    (sym_identifier, ACTIONS 9), (anon_sym_import, ACTIONS 11), (anon_sym_from, ACTIONS 13),
    (anon_sym_LPAREN, ACTIONS 15), (anon_sym_STAR, ACTIONS 17), (anon_sym_print, ACTIONS 19),
    (anon_sym_comptime, ACTIONS 99), (anon_sym_assert, ACTIONS 23),
    (anon_sym___comptime_assert, ACTIONS 25), (anon_sym_return, ACTIONS 27),
    (anon_sym_del, ACTIONS 29), (anon_sym_raise, ACTIONS 31), (anon_sym_pass, ACTIONS 33),
    (anon_sym_break, ACTIONS 35), (anon_sym_continue, ACTIONS 37),
    (anon_sym___extension, ACTIONS 101), (anon_sym___mlir_region, ACTIONS 103),
    (anon_sym_if, ACTIONS 105), (anon_sym_match, ACTIONS 107), (anon_sym_async, ACTIONS 109),
    (anon_sym_for, ACTIONS 111), (anon_sym_while, ACTIONS 113), (anon_sym_try, ACTIONS 115),
    (anon_sym_with, ACTIONS 117), (anon_sym_def, ACTIONS 119), (anon_sym_fn, ACTIONS 119),
    (anon_sym_LBRACK, ACTIONS 59), (anon_sym_LBRACE, ACTIONS 61), (anon_sym_global, ACTIONS 63),
    (anon_sym_nonlocal, ACTIONS 65), (anon_sym_exec, ACTIONS 67), (anon_sym_type, ACTIONS 69),
    (anon_sym_class, ACTIONS 121), (anon_sym_struct, ACTIONS 121), (anon_sym_mut, ACTIONS 73),
    (anon_sym_out, ACTIONS 73), (anon_sym_trait, ACTIONS 123), (anon_sym_AT, ACTIONS 77),
    (anon_sym_DASH, ACTIONS 79), (anon_sym_PLUS, ACTIONS 79), (anon_sym_ref, ACTIONS 81),
    (anon_sym_var, ACTIONS 81), (anon_sym_not, ACTIONS 83), (anon_sym_TILDE, ACTIONS 79),
    (anon_sym_lambda, ACTIONS 85), (anon_sym_yield, ACTIONS 87), (sym_ellipsis, ACTIONS 89),
    (anon_sym___mlir_type, ACTIONS 91), (sym_integer, ACTIONS 93), (sym_float, ACTIONS 89),
    (anon_sym_await, ACTIONS 95), (sym_true, ACTIONS 93), (sym_false, ACTIONS 93),
    (sym_none, ACTIONS 93), (sym_comment, ACTIONS 3), (sym_line_continuation, ACTIONS 3),
    (sym__dedent, ACTIONS 129), (sym_string_start, ACTIONS 97)]"

definition parse_table_440 :: "(nat \<times> nat) list" where "parse_table_440 = [
    (sym__statement, STATE 925), (sym__simple_statements, STATE 925),
    (sym_import_statement, STATE 11814), (sym_future_import_statement, STATE 11814),
    (sym_import_from_statement, STATE 11814), (sym_print_statement, STATE 11814),
    (sym_assert_statement, STATE 11814), (sym_comptime_assert_statement, STATE 11814),
    (sym_expression_statement, STATE 11814), (sym_tuple_expression, STATE 12425),
    (sym_named_expression, STATE 7969), (sym__named_expression_lhs, STATE 12752),
    (sym_return_statement, STATE 11814), (sym_delete_statement, STATE 11814),
    (sym_raise_statement, STATE 11814), (sym_pass_statement, STATE 11814),
    (sym_break_statement, STATE 11814), (sym_continue_statement, STATE 11814),
    (sym_extension_definition, STATE 925), (sym_mlir_region, STATE 925),
    (sym_comptime_statement, STATE 925), (sym_if_statement, STATE 925),
    (sym_match_statement, STATE 925), (sym_for_statement, STATE 925),
    (sym_while_statement, STATE 925), (sym_try_statement, STATE 925),
    (sym_with_statement, STATE 925), (sym_function_definition, STATE 925),
    (sym_global_statement, STATE 11814), (sym_nonlocal_statement, STATE 11814),
    (sym_exec_statement, STATE 11814), (sym_type_alias_statement, STATE 11814),
    (sym_parameterized_alias_statement, STATE 11814), (sym_class_definition, STATE 925),
    (sym_trait_definition, STATE 925), (sym_decorated_definition, STATE 925),
    (sym_decorator, STATE 3670), (sym_block, STATE 4795), (sym_pattern, STATE 8086),
    (sym_tuple_pattern, STATE 8101), (sym_list_pattern, STATE 8101),
    (sym_list_splat_pattern, STATE 6819), (sym_as_pattern, STATE 7969),
    (sym_expression, STATE 9883), (sym_primary_expression, STATE 7326),
    (sym_comptime_expression, STATE 7017), (sym_transfer_expression, STATE 7017),
    (sym_not_operator, STATE 7969), (sym_boolean_operator, STATE 7969),
    (sym_binary_operator, STATE 7017), (sym_unary_operator, STATE 7017),
    (sym_comparison_operator, STATE 7969), (sym_lambda, STATE 7969),
    (sym_assignment, STATE 12425), (sym_augmented_assignment, STATE 12425),
    (sym_pattern_list, STATE 8578), (sym_yield, STATE 12425), (sym_attribute, STATE 6836),
    (sym_subscript, STATE 6838), (sym_call, STATE 6845), (sym_mlir_type, STATE 7017),
    (sym_list, STATE 7017), (sym_set, STATE 7017), (sym_tuple, STATE 7017),
    (sym_dictionary, STATE 7017), (sym_struct_literal, STATE 7017),
    (sym_list_comprehension, STATE 7017), (sym_dictionary_comprehension, STATE 7017),
    (sym_set_comprehension, STATE 7017), (sym_generator_expression, STATE 7017),
    (sym_parenthesized_expression, STATE 7017), (sym_conditional_expression, STATE 7969),
    (sym_concatenated_string, STATE 7017), (sym_string, STATE 6751), (sym_await, STATE 7017),
    (aux_sym_module_repeat1, STATE 925), (aux_sym_decorated_definition_repeat1, STATE 3670),
    (sym_identifier, ACTIONS 9), (anon_sym_import, ACTIONS 11), (anon_sym_from, ACTIONS 13),
    (anon_sym_LPAREN, ACTIONS 15), (anon_sym_STAR, ACTIONS 17), (anon_sym_print, ACTIONS 19),
    (anon_sym_comptime, ACTIONS 99), (anon_sym_assert, ACTIONS 23),
    (anon_sym___comptime_assert, ACTIONS 25), (anon_sym_return, ACTIONS 27),
    (anon_sym_del, ACTIONS 29), (anon_sym_raise, ACTIONS 31), (anon_sym_pass, ACTIONS 33),
    (anon_sym_break, ACTIONS 35), (anon_sym_continue, ACTIONS 37),
    (anon_sym___extension, ACTIONS 101), (anon_sym___mlir_region, ACTIONS 103),
    (anon_sym_if, ACTIONS 105), (anon_sym_match, ACTIONS 107), (anon_sym_async, ACTIONS 109),
    (anon_sym_for, ACTIONS 111), (anon_sym_while, ACTIONS 113), (anon_sym_try, ACTIONS 115),
    (anon_sym_with, ACTIONS 117), (anon_sym_def, ACTIONS 119), (anon_sym_fn, ACTIONS 119),
    (anon_sym_LBRACK, ACTIONS 59), (anon_sym_LBRACE, ACTIONS 61), (anon_sym_global, ACTIONS 63),
    (anon_sym_nonlocal, ACTIONS 65), (anon_sym_exec, ACTIONS 67), (anon_sym_type, ACTIONS 69),
    (anon_sym_class, ACTIONS 121), (anon_sym_struct, ACTIONS 121), (anon_sym_mut, ACTIONS 73),
    (anon_sym_out, ACTIONS 73), (anon_sym_trait, ACTIONS 123), (anon_sym_AT, ACTIONS 77),
    (anon_sym_DASH, ACTIONS 79), (anon_sym_PLUS, ACTIONS 79), (anon_sym_ref, ACTIONS 81),
    (anon_sym_var, ACTIONS 81), (anon_sym_not, ACTIONS 83), (anon_sym_TILDE, ACTIONS 79),
    (anon_sym_lambda, ACTIONS 85), (anon_sym_yield, ACTIONS 87), (sym_ellipsis, ACTIONS 89),
    (anon_sym___mlir_type, ACTIONS 91), (sym_integer, ACTIONS 93), (sym_float, ACTIONS 89),
    (anon_sym_await, ACTIONS 95), (sym_true, ACTIONS 93), (sym_false, ACTIONS 93),
    (sym_none, ACTIONS 93), (sym_comment, ACTIONS 3), (sym_line_continuation, ACTIONS 3),
    (sym__dedent, ACTIONS 129), (sym_string_start, ACTIONS 97)]"

definition parse_table_441 :: "(nat \<times> nat) list" where "parse_table_441 = [
    (sym__statement, STATE 925), (sym__simple_statements, STATE 925),
    (sym_import_statement, STATE 11814), (sym_future_import_statement, STATE 11814),
    (sym_import_from_statement, STATE 11814), (sym_print_statement, STATE 11814),
    (sym_assert_statement, STATE 11814), (sym_comptime_assert_statement, STATE 11814),
    (sym_expression_statement, STATE 11814), (sym_tuple_expression, STATE 12425),
    (sym_named_expression, STATE 7969), (sym__named_expression_lhs, STATE 12752),
    (sym_return_statement, STATE 11814), (sym_delete_statement, STATE 11814),
    (sym_raise_statement, STATE 11814), (sym_pass_statement, STATE 11814),
    (sym_break_statement, STATE 11814), (sym_continue_statement, STATE 11814),
    (sym_extension_definition, STATE 925), (sym_mlir_region, STATE 925),
    (sym_comptime_statement, STATE 925), (sym_if_statement, STATE 925),
    (sym_match_statement, STATE 925), (sym_for_statement, STATE 925),
    (sym_while_statement, STATE 925), (sym_try_statement, STATE 925),
    (sym_with_statement, STATE 925), (sym_function_definition, STATE 925),
    (sym_global_statement, STATE 11814), (sym_nonlocal_statement, STATE 11814),
    (sym_exec_statement, STATE 11814), (sym_type_alias_statement, STATE 11814),
    (sym_parameterized_alias_statement, STATE 11814), (sym_class_definition, STATE 925),
    (sym_trait_definition, STATE 925), (sym_decorated_definition, STATE 925),
    (sym_decorator, STATE 3670), (sym_block, STATE 5064), (sym_pattern, STATE 8086),
    (sym_tuple_pattern, STATE 8101), (sym_list_pattern, STATE 8101),
    (sym_list_splat_pattern, STATE 6819), (sym_as_pattern, STATE 7969),
    (sym_expression, STATE 9883), (sym_primary_expression, STATE 7326),
    (sym_comptime_expression, STATE 7017), (sym_transfer_expression, STATE 7017),
    (sym_not_operator, STATE 7969), (sym_boolean_operator, STATE 7969),
    (sym_binary_operator, STATE 7017), (sym_unary_operator, STATE 7017),
    (sym_comparison_operator, STATE 7969), (sym_lambda, STATE 7969),
    (sym_assignment, STATE 12425), (sym_augmented_assignment, STATE 12425),
    (sym_pattern_list, STATE 8578), (sym_yield, STATE 12425), (sym_attribute, STATE 6836),
    (sym_subscript, STATE 6838), (sym_call, STATE 6845), (sym_mlir_type, STATE 7017),
    (sym_list, STATE 7017), (sym_set, STATE 7017), (sym_tuple, STATE 7017),
    (sym_dictionary, STATE 7017), (sym_struct_literal, STATE 7017),
    (sym_list_comprehension, STATE 7017), (sym_dictionary_comprehension, STATE 7017),
    (sym_set_comprehension, STATE 7017), (sym_generator_expression, STATE 7017),
    (sym_parenthesized_expression, STATE 7017), (sym_conditional_expression, STATE 7969),
    (sym_concatenated_string, STATE 7017), (sym_string, STATE 6751), (sym_await, STATE 7017),
    (aux_sym_module_repeat1, STATE 925), (aux_sym_decorated_definition_repeat1, STATE 3670),
    (sym_identifier, ACTIONS 9), (anon_sym_import, ACTIONS 11), (anon_sym_from, ACTIONS 13),
    (anon_sym_LPAREN, ACTIONS 15), (anon_sym_STAR, ACTIONS 17), (anon_sym_print, ACTIONS 19),
    (anon_sym_comptime, ACTIONS 99), (anon_sym_assert, ACTIONS 23),
    (anon_sym___comptime_assert, ACTIONS 25), (anon_sym_return, ACTIONS 27),
    (anon_sym_del, ACTIONS 29), (anon_sym_raise, ACTIONS 31), (anon_sym_pass, ACTIONS 33),
    (anon_sym_break, ACTIONS 35), (anon_sym_continue, ACTIONS 37),
    (anon_sym___extension, ACTIONS 101), (anon_sym___mlir_region, ACTIONS 103),
    (anon_sym_if, ACTIONS 105), (anon_sym_match, ACTIONS 107), (anon_sym_async, ACTIONS 109),
    (anon_sym_for, ACTIONS 111), (anon_sym_while, ACTIONS 113), (anon_sym_try, ACTIONS 115),
    (anon_sym_with, ACTIONS 117), (anon_sym_def, ACTIONS 119), (anon_sym_fn, ACTIONS 119),
    (anon_sym_LBRACK, ACTIONS 59), (anon_sym_LBRACE, ACTIONS 61), (anon_sym_global, ACTIONS 63),
    (anon_sym_nonlocal, ACTIONS 65), (anon_sym_exec, ACTIONS 67), (anon_sym_type, ACTIONS 69),
    (anon_sym_class, ACTIONS 121), (anon_sym_struct, ACTIONS 121), (anon_sym_mut, ACTIONS 73),
    (anon_sym_out, ACTIONS 73), (anon_sym_trait, ACTIONS 123), (anon_sym_AT, ACTIONS 77),
    (anon_sym_DASH, ACTIONS 79), (anon_sym_PLUS, ACTIONS 79), (anon_sym_ref, ACTIONS 81),
    (anon_sym_var, ACTIONS 81), (anon_sym_not, ACTIONS 83), (anon_sym_TILDE, ACTIONS 79),
    (anon_sym_lambda, ACTIONS 85), (anon_sym_yield, ACTIONS 87), (sym_ellipsis, ACTIONS 89),
    (anon_sym___mlir_type, ACTIONS 91), (sym_integer, ACTIONS 93), (sym_float, ACTIONS 89),
    (anon_sym_await, ACTIONS 95), (sym_true, ACTIONS 93), (sym_false, ACTIONS 93),
    (sym_none, ACTIONS 93), (sym_comment, ACTIONS 3), (sym_line_continuation, ACTIONS 3),
    (sym__dedent, ACTIONS 129), (sym_string_start, ACTIONS 97)]"

definition parse_table_442 :: "(nat \<times> nat) list" where "parse_table_442 = [
    (sym__statement, STATE 925), (sym__simple_statements, STATE 925),
    (sym_import_statement, STATE 11814), (sym_future_import_statement, STATE 11814),
    (sym_import_from_statement, STATE 11814), (sym_print_statement, STATE 11814),
    (sym_assert_statement, STATE 11814), (sym_comptime_assert_statement, STATE 11814),
    (sym_expression_statement, STATE 11814), (sym_tuple_expression, STATE 12425),
    (sym_named_expression, STATE 7969), (sym__named_expression_lhs, STATE 12752),
    (sym_return_statement, STATE 11814), (sym_delete_statement, STATE 11814),
    (sym_raise_statement, STATE 11814), (sym_pass_statement, STATE 11814),
    (sym_break_statement, STATE 11814), (sym_continue_statement, STATE 11814),
    (sym_extension_definition, STATE 925), (sym_mlir_region, STATE 925),
    (sym_comptime_statement, STATE 925), (sym_if_statement, STATE 925),
    (sym_match_statement, STATE 925), (sym_for_statement, STATE 925),
    (sym_while_statement, STATE 925), (sym_try_statement, STATE 925),
    (sym_with_statement, STATE 925), (sym_function_definition, STATE 925),
    (sym_global_statement, STATE 11814), (sym_nonlocal_statement, STATE 11814),
    (sym_exec_statement, STATE 11814), (sym_type_alias_statement, STATE 11814),
    (sym_parameterized_alias_statement, STATE 11814), (sym_class_definition, STATE 925),
    (sym_trait_definition, STATE 925), (sym_decorated_definition, STATE 925),
    (sym_decorator, STATE 3670), (sym_block, STATE 5093), (sym_pattern, STATE 8086),
    (sym_tuple_pattern, STATE 8101), (sym_list_pattern, STATE 8101),
    (sym_list_splat_pattern, STATE 6819), (sym_as_pattern, STATE 7969),
    (sym_expression, STATE 9883), (sym_primary_expression, STATE 7326),
    (sym_comptime_expression, STATE 7017), (sym_transfer_expression, STATE 7017),
    (sym_not_operator, STATE 7969), (sym_boolean_operator, STATE 7969),
    (sym_binary_operator, STATE 7017), (sym_unary_operator, STATE 7017),
    (sym_comparison_operator, STATE 7969), (sym_lambda, STATE 7969),
    (sym_assignment, STATE 12425), (sym_augmented_assignment, STATE 12425),
    (sym_pattern_list, STATE 8578), (sym_yield, STATE 12425), (sym_attribute, STATE 6836),
    (sym_subscript, STATE 6838), (sym_call, STATE 6845), (sym_mlir_type, STATE 7017),
    (sym_list, STATE 7017), (sym_set, STATE 7017), (sym_tuple, STATE 7017),
    (sym_dictionary, STATE 7017), (sym_struct_literal, STATE 7017),
    (sym_list_comprehension, STATE 7017), (sym_dictionary_comprehension, STATE 7017),
    (sym_set_comprehension, STATE 7017), (sym_generator_expression, STATE 7017),
    (sym_parenthesized_expression, STATE 7017), (sym_conditional_expression, STATE 7969),
    (sym_concatenated_string, STATE 7017), (sym_string, STATE 6751), (sym_await, STATE 7017),
    (aux_sym_module_repeat1, STATE 925), (aux_sym_decorated_definition_repeat1, STATE 3670),
    (sym_identifier, ACTIONS 9), (anon_sym_import, ACTIONS 11), (anon_sym_from, ACTIONS 13),
    (anon_sym_LPAREN, ACTIONS 15), (anon_sym_STAR, ACTIONS 17), (anon_sym_print, ACTIONS 19),
    (anon_sym_comptime, ACTIONS 99), (anon_sym_assert, ACTIONS 23),
    (anon_sym___comptime_assert, ACTIONS 25), (anon_sym_return, ACTIONS 27),
    (anon_sym_del, ACTIONS 29), (anon_sym_raise, ACTIONS 31), (anon_sym_pass, ACTIONS 33),
    (anon_sym_break, ACTIONS 35), (anon_sym_continue, ACTIONS 37),
    (anon_sym___extension, ACTIONS 101), (anon_sym___mlir_region, ACTIONS 103),
    (anon_sym_if, ACTIONS 105), (anon_sym_match, ACTIONS 107), (anon_sym_async, ACTIONS 109),
    (anon_sym_for, ACTIONS 111), (anon_sym_while, ACTIONS 113), (anon_sym_try, ACTIONS 115),
    (anon_sym_with, ACTIONS 117), (anon_sym_def, ACTIONS 119), (anon_sym_fn, ACTIONS 119),
    (anon_sym_LBRACK, ACTIONS 59), (anon_sym_LBRACE, ACTIONS 61), (anon_sym_global, ACTIONS 63),
    (anon_sym_nonlocal, ACTIONS 65), (anon_sym_exec, ACTIONS 67), (anon_sym_type, ACTIONS 69),
    (anon_sym_class, ACTIONS 121), (anon_sym_struct, ACTIONS 121), (anon_sym_mut, ACTIONS 73),
    (anon_sym_out, ACTIONS 73), (anon_sym_trait, ACTIONS 123), (anon_sym_AT, ACTIONS 77),
    (anon_sym_DASH, ACTIONS 79), (anon_sym_PLUS, ACTIONS 79), (anon_sym_ref, ACTIONS 81),
    (anon_sym_var, ACTIONS 81), (anon_sym_not, ACTIONS 83), (anon_sym_TILDE, ACTIONS 79),
    (anon_sym_lambda, ACTIONS 85), (anon_sym_yield, ACTIONS 87), (sym_ellipsis, ACTIONS 89),
    (anon_sym___mlir_type, ACTIONS 91), (sym_integer, ACTIONS 93), (sym_float, ACTIONS 89),
    (anon_sym_await, ACTIONS 95), (sym_true, ACTIONS 93), (sym_false, ACTIONS 93),
    (sym_none, ACTIONS 93), (sym_comment, ACTIONS 3), (sym_line_continuation, ACTIONS 3),
    (sym__dedent, ACTIONS 129), (sym_string_start, ACTIONS 97)]"

definition parse_table_443 :: "(nat \<times> nat) list" where "parse_table_443 = [
    (sym__statement, STATE 925), (sym__simple_statements, STATE 925),
    (sym_import_statement, STATE 11814), (sym_future_import_statement, STATE 11814),
    (sym_import_from_statement, STATE 11814), (sym_print_statement, STATE 11814),
    (sym_assert_statement, STATE 11814), (sym_comptime_assert_statement, STATE 11814),
    (sym_expression_statement, STATE 11814), (sym_tuple_expression, STATE 12425),
    (sym_named_expression, STATE 7969), (sym__named_expression_lhs, STATE 12752),
    (sym_return_statement, STATE 11814), (sym_delete_statement, STATE 11814),
    (sym_raise_statement, STATE 11814), (sym_pass_statement, STATE 11814),
    (sym_break_statement, STATE 11814), (sym_continue_statement, STATE 11814),
    (sym_extension_definition, STATE 925), (sym_mlir_region, STATE 925),
    (sym_comptime_statement, STATE 925), (sym_if_statement, STATE 925),
    (sym_match_statement, STATE 925), (sym_for_statement, STATE 925),
    (sym_while_statement, STATE 925), (sym_try_statement, STATE 925),
    (sym_with_statement, STATE 925), (sym_function_definition, STATE 925),
    (sym_global_statement, STATE 11814), (sym_nonlocal_statement, STATE 11814),
    (sym_exec_statement, STATE 11814), (sym_type_alias_statement, STATE 11814),
    (sym_parameterized_alias_statement, STATE 11814), (sym_class_definition, STATE 925),
    (sym_trait_definition, STATE 925), (sym_decorated_definition, STATE 925),
    (sym_decorator, STATE 3670), (sym_block, STATE 5096), (sym_pattern, STATE 8086),
    (sym_tuple_pattern, STATE 8101), (sym_list_pattern, STATE 8101),
    (sym_list_splat_pattern, STATE 6819), (sym_as_pattern, STATE 7969),
    (sym_expression, STATE 9883), (sym_primary_expression, STATE 7326),
    (sym_comptime_expression, STATE 7017), (sym_transfer_expression, STATE 7017),
    (sym_not_operator, STATE 7969), (sym_boolean_operator, STATE 7969),
    (sym_binary_operator, STATE 7017), (sym_unary_operator, STATE 7017),
    (sym_comparison_operator, STATE 7969), (sym_lambda, STATE 7969),
    (sym_assignment, STATE 12425), (sym_augmented_assignment, STATE 12425),
    (sym_pattern_list, STATE 8578), (sym_yield, STATE 12425), (sym_attribute, STATE 6836),
    (sym_subscript, STATE 6838), (sym_call, STATE 6845), (sym_mlir_type, STATE 7017),
    (sym_list, STATE 7017), (sym_set, STATE 7017), (sym_tuple, STATE 7017),
    (sym_dictionary, STATE 7017), (sym_struct_literal, STATE 7017),
    (sym_list_comprehension, STATE 7017), (sym_dictionary_comprehension, STATE 7017),
    (sym_set_comprehension, STATE 7017), (sym_generator_expression, STATE 7017),
    (sym_parenthesized_expression, STATE 7017), (sym_conditional_expression, STATE 7969),
    (sym_concatenated_string, STATE 7017), (sym_string, STATE 6751), (sym_await, STATE 7017),
    (aux_sym_module_repeat1, STATE 925), (aux_sym_decorated_definition_repeat1, STATE 3670),
    (sym_identifier, ACTIONS 9), (anon_sym_import, ACTIONS 11), (anon_sym_from, ACTIONS 13),
    (anon_sym_LPAREN, ACTIONS 15), (anon_sym_STAR, ACTIONS 17), (anon_sym_print, ACTIONS 19),
    (anon_sym_comptime, ACTIONS 99), (anon_sym_assert, ACTIONS 23),
    (anon_sym___comptime_assert, ACTIONS 25), (anon_sym_return, ACTIONS 27),
    (anon_sym_del, ACTIONS 29), (anon_sym_raise, ACTIONS 31), (anon_sym_pass, ACTIONS 33),
    (anon_sym_break, ACTIONS 35), (anon_sym_continue, ACTIONS 37),
    (anon_sym___extension, ACTIONS 101), (anon_sym___mlir_region, ACTIONS 103),
    (anon_sym_if, ACTIONS 105), (anon_sym_match, ACTIONS 107), (anon_sym_async, ACTIONS 109),
    (anon_sym_for, ACTIONS 111), (anon_sym_while, ACTIONS 113), (anon_sym_try, ACTIONS 115),
    (anon_sym_with, ACTIONS 117), (anon_sym_def, ACTIONS 119), (anon_sym_fn, ACTIONS 119),
    (anon_sym_LBRACK, ACTIONS 59), (anon_sym_LBRACE, ACTIONS 61), (anon_sym_global, ACTIONS 63),
    (anon_sym_nonlocal, ACTIONS 65), (anon_sym_exec, ACTIONS 67), (anon_sym_type, ACTIONS 69),
    (anon_sym_class, ACTIONS 121), (anon_sym_struct, ACTIONS 121), (anon_sym_mut, ACTIONS 73),
    (anon_sym_out, ACTIONS 73), (anon_sym_trait, ACTIONS 123), (anon_sym_AT, ACTIONS 77),
    (anon_sym_DASH, ACTIONS 79), (anon_sym_PLUS, ACTIONS 79), (anon_sym_ref, ACTIONS 81),
    (anon_sym_var, ACTIONS 81), (anon_sym_not, ACTIONS 83), (anon_sym_TILDE, ACTIONS 79),
    (anon_sym_lambda, ACTIONS 85), (anon_sym_yield, ACTIONS 87), (sym_ellipsis, ACTIONS 89),
    (anon_sym___mlir_type, ACTIONS 91), (sym_integer, ACTIONS 93), (sym_float, ACTIONS 89),
    (anon_sym_await, ACTIONS 95), (sym_true, ACTIONS 93), (sym_false, ACTIONS 93),
    (sym_none, ACTIONS 93), (sym_comment, ACTIONS 3), (sym_line_continuation, ACTIONS 3),
    (sym__dedent, ACTIONS 129), (sym_string_start, ACTIONS 97)]"

definition parse_table_444 :: "(nat \<times> nat) list" where "parse_table_444 = [
    (sym__statement, STATE 925), (sym__simple_statements, STATE 925),
    (sym_import_statement, STATE 11814), (sym_future_import_statement, STATE 11814),
    (sym_import_from_statement, STATE 11814), (sym_print_statement, STATE 11814),
    (sym_assert_statement, STATE 11814), (sym_comptime_assert_statement, STATE 11814),
    (sym_expression_statement, STATE 11814), (sym_tuple_expression, STATE 12425),
    (sym_named_expression, STATE 7969), (sym__named_expression_lhs, STATE 12752),
    (sym_return_statement, STATE 11814), (sym_delete_statement, STATE 11814),
    (sym_raise_statement, STATE 11814), (sym_pass_statement, STATE 11814),
    (sym_break_statement, STATE 11814), (sym_continue_statement, STATE 11814),
    (sym_extension_definition, STATE 925), (sym_mlir_region, STATE 925),
    (sym_comptime_statement, STATE 925), (sym_if_statement, STATE 925),
    (sym_match_statement, STATE 925), (sym_for_statement, STATE 925),
    (sym_while_statement, STATE 925), (sym_try_statement, STATE 925),
    (sym_with_statement, STATE 925), (sym_function_definition, STATE 925),
    (sym_global_statement, STATE 11814), (sym_nonlocal_statement, STATE 11814),
    (sym_exec_statement, STATE 11814), (sym_type_alias_statement, STATE 11814),
    (sym_parameterized_alias_statement, STATE 11814), (sym_class_definition, STATE 925),
    (sym_trait_definition, STATE 925), (sym_decorated_definition, STATE 925),
    (sym_decorator, STATE 3670), (sym_block, STATE 5592), (sym_pattern, STATE 8086),
    (sym_tuple_pattern, STATE 8101), (sym_list_pattern, STATE 8101),
    (sym_list_splat_pattern, STATE 6819), (sym_as_pattern, STATE 7969),
    (sym_expression, STATE 9883), (sym_primary_expression, STATE 7326),
    (sym_comptime_expression, STATE 7017), (sym_transfer_expression, STATE 7017),
    (sym_not_operator, STATE 7969), (sym_boolean_operator, STATE 7969),
    (sym_binary_operator, STATE 7017), (sym_unary_operator, STATE 7017),
    (sym_comparison_operator, STATE 7969), (sym_lambda, STATE 7969),
    (sym_assignment, STATE 12425), (sym_augmented_assignment, STATE 12425),
    (sym_pattern_list, STATE 8578), (sym_yield, STATE 12425), (sym_attribute, STATE 6836),
    (sym_subscript, STATE 6838), (sym_call, STATE 6845), (sym_mlir_type, STATE 7017),
    (sym_list, STATE 7017), (sym_set, STATE 7017), (sym_tuple, STATE 7017),
    (sym_dictionary, STATE 7017), (sym_struct_literal, STATE 7017),
    (sym_list_comprehension, STATE 7017), (sym_dictionary_comprehension, STATE 7017),
    (sym_set_comprehension, STATE 7017), (sym_generator_expression, STATE 7017),
    (sym_parenthesized_expression, STATE 7017), (sym_conditional_expression, STATE 7969),
    (sym_concatenated_string, STATE 7017), (sym_string, STATE 6751), (sym_await, STATE 7017),
    (aux_sym_module_repeat1, STATE 925), (aux_sym_decorated_definition_repeat1, STATE 3670),
    (sym_identifier, ACTIONS 9), (anon_sym_import, ACTIONS 11), (anon_sym_from, ACTIONS 13),
    (anon_sym_LPAREN, ACTIONS 15), (anon_sym_STAR, ACTIONS 17), (anon_sym_print, ACTIONS 19),
    (anon_sym_comptime, ACTIONS 99), (anon_sym_assert, ACTIONS 23),
    (anon_sym___comptime_assert, ACTIONS 25), (anon_sym_return, ACTIONS 27),
    (anon_sym_del, ACTIONS 29), (anon_sym_raise, ACTIONS 31), (anon_sym_pass, ACTIONS 33),
    (anon_sym_break, ACTIONS 35), (anon_sym_continue, ACTIONS 37),
    (anon_sym___extension, ACTIONS 101), (anon_sym___mlir_region, ACTIONS 103),
    (anon_sym_if, ACTIONS 105), (anon_sym_match, ACTIONS 107), (anon_sym_async, ACTIONS 109),
    (anon_sym_for, ACTIONS 111), (anon_sym_while, ACTIONS 113), (anon_sym_try, ACTIONS 115),
    (anon_sym_with, ACTIONS 117), (anon_sym_def, ACTIONS 119), (anon_sym_fn, ACTIONS 119),
    (anon_sym_LBRACK, ACTIONS 59), (anon_sym_LBRACE, ACTIONS 61), (anon_sym_global, ACTIONS 63),
    (anon_sym_nonlocal, ACTIONS 65), (anon_sym_exec, ACTIONS 67), (anon_sym_type, ACTIONS 69),
    (anon_sym_class, ACTIONS 121), (anon_sym_struct, ACTIONS 121), (anon_sym_mut, ACTIONS 73),
    (anon_sym_out, ACTIONS 73), (anon_sym_trait, ACTIONS 123), (anon_sym_AT, ACTIONS 77),
    (anon_sym_DASH, ACTIONS 79), (anon_sym_PLUS, ACTIONS 79), (anon_sym_ref, ACTIONS 81),
    (anon_sym_var, ACTIONS 81), (anon_sym_not, ACTIONS 83), (anon_sym_TILDE, ACTIONS 79),
    (anon_sym_lambda, ACTIONS 85), (anon_sym_yield, ACTIONS 87), (sym_ellipsis, ACTIONS 89),
    (anon_sym___mlir_type, ACTIONS 91), (sym_integer, ACTIONS 93), (sym_float, ACTIONS 89),
    (anon_sym_await, ACTIONS 95), (sym_true, ACTIONS 93), (sym_false, ACTIONS 93),
    (sym_none, ACTIONS 93), (sym_comment, ACTIONS 3), (sym_line_continuation, ACTIONS 3),
    (sym__dedent, ACTIONS 129), (sym_string_start, ACTIONS 97)]"

definition parse_table_445 :: "(nat \<times> nat) list" where "parse_table_445 = [
    (sym__statement, STATE 925), (sym__simple_statements, STATE 925),
    (sym_import_statement, STATE 11814), (sym_future_import_statement, STATE 11814),
    (sym_import_from_statement, STATE 11814), (sym_print_statement, STATE 11814),
    (sym_assert_statement, STATE 11814), (sym_comptime_assert_statement, STATE 11814),
    (sym_expression_statement, STATE 11814), (sym_tuple_expression, STATE 12425),
    (sym_named_expression, STATE 7969), (sym__named_expression_lhs, STATE 12752),
    (sym_return_statement, STATE 11814), (sym_delete_statement, STATE 11814),
    (sym_raise_statement, STATE 11814), (sym_pass_statement, STATE 11814),
    (sym_break_statement, STATE 11814), (sym_continue_statement, STATE 11814),
    (sym_extension_definition, STATE 925), (sym_mlir_region, STATE 925),
    (sym_comptime_statement, STATE 925), (sym_if_statement, STATE 925),
    (sym_match_statement, STATE 925), (sym_for_statement, STATE 925),
    (sym_while_statement, STATE 925), (sym_try_statement, STATE 925),
    (sym_with_statement, STATE 925), (sym_function_definition, STATE 925),
    (sym_global_statement, STATE 11814), (sym_nonlocal_statement, STATE 11814),
    (sym_exec_statement, STATE 11814), (sym_type_alias_statement, STATE 11814),
    (sym_parameterized_alias_statement, STATE 11814), (sym_class_definition, STATE 925),
    (sym_trait_definition, STATE 925), (sym_decorated_definition, STATE 925),
    (sym_decorator, STATE 3670), (sym_block, STATE 5597), (sym_pattern, STATE 8086),
    (sym_tuple_pattern, STATE 8101), (sym_list_pattern, STATE 8101),
    (sym_list_splat_pattern, STATE 6819), (sym_as_pattern, STATE 7969),
    (sym_expression, STATE 9883), (sym_primary_expression, STATE 7326),
    (sym_comptime_expression, STATE 7017), (sym_transfer_expression, STATE 7017),
    (sym_not_operator, STATE 7969), (sym_boolean_operator, STATE 7969),
    (sym_binary_operator, STATE 7017), (sym_unary_operator, STATE 7017),
    (sym_comparison_operator, STATE 7969), (sym_lambda, STATE 7969),
    (sym_assignment, STATE 12425), (sym_augmented_assignment, STATE 12425),
    (sym_pattern_list, STATE 8578), (sym_yield, STATE 12425), (sym_attribute, STATE 6836),
    (sym_subscript, STATE 6838), (sym_call, STATE 6845), (sym_mlir_type, STATE 7017),
    (sym_list, STATE 7017), (sym_set, STATE 7017), (sym_tuple, STATE 7017),
    (sym_dictionary, STATE 7017), (sym_struct_literal, STATE 7017),
    (sym_list_comprehension, STATE 7017), (sym_dictionary_comprehension, STATE 7017),
    (sym_set_comprehension, STATE 7017), (sym_generator_expression, STATE 7017),
    (sym_parenthesized_expression, STATE 7017), (sym_conditional_expression, STATE 7969),
    (sym_concatenated_string, STATE 7017), (sym_string, STATE 6751), (sym_await, STATE 7017),
    (aux_sym_module_repeat1, STATE 925), (aux_sym_decorated_definition_repeat1, STATE 3670),
    (sym_identifier, ACTIONS 9), (anon_sym_import, ACTIONS 11), (anon_sym_from, ACTIONS 13),
    (anon_sym_LPAREN, ACTIONS 15), (anon_sym_STAR, ACTIONS 17), (anon_sym_print, ACTIONS 19),
    (anon_sym_comptime, ACTIONS 99), (anon_sym_assert, ACTIONS 23),
    (anon_sym___comptime_assert, ACTIONS 25), (anon_sym_return, ACTIONS 27),
    (anon_sym_del, ACTIONS 29), (anon_sym_raise, ACTIONS 31), (anon_sym_pass, ACTIONS 33),
    (anon_sym_break, ACTIONS 35), (anon_sym_continue, ACTIONS 37),
    (anon_sym___extension, ACTIONS 101), (anon_sym___mlir_region, ACTIONS 103),
    (anon_sym_if, ACTIONS 105), (anon_sym_match, ACTIONS 107), (anon_sym_async, ACTIONS 109),
    (anon_sym_for, ACTIONS 111), (anon_sym_while, ACTIONS 113), (anon_sym_try, ACTIONS 115),
    (anon_sym_with, ACTIONS 117), (anon_sym_def, ACTIONS 119), (anon_sym_fn, ACTIONS 119),
    (anon_sym_LBRACK, ACTIONS 59), (anon_sym_LBRACE, ACTIONS 61), (anon_sym_global, ACTIONS 63),
    (anon_sym_nonlocal, ACTIONS 65), (anon_sym_exec, ACTIONS 67), (anon_sym_type, ACTIONS 69),
    (anon_sym_class, ACTIONS 121), (anon_sym_struct, ACTIONS 121), (anon_sym_mut, ACTIONS 73),
    (anon_sym_out, ACTIONS 73), (anon_sym_trait, ACTIONS 123), (anon_sym_AT, ACTIONS 77),
    (anon_sym_DASH, ACTIONS 79), (anon_sym_PLUS, ACTIONS 79), (anon_sym_ref, ACTIONS 81),
    (anon_sym_var, ACTIONS 81), (anon_sym_not, ACTIONS 83), (anon_sym_TILDE, ACTIONS 79),
    (anon_sym_lambda, ACTIONS 85), (anon_sym_yield, ACTIONS 87), (sym_ellipsis, ACTIONS 89),
    (anon_sym___mlir_type, ACTIONS 91), (sym_integer, ACTIONS 93), (sym_float, ACTIONS 89),
    (anon_sym_await, ACTIONS 95), (sym_true, ACTIONS 93), (sym_false, ACTIONS 93),
    (sym_none, ACTIONS 93), (sym_comment, ACTIONS 3), (sym_line_continuation, ACTIONS 3),
    (sym__dedent, ACTIONS 129), (sym_string_start, ACTIONS 97)]"

definition parse_table_446 :: "(nat \<times> nat) list" where "parse_table_446 = [
    (sym__statement, STATE 925), (sym__simple_statements, STATE 925),
    (sym_import_statement, STATE 11814), (sym_future_import_statement, STATE 11814),
    (sym_import_from_statement, STATE 11814), (sym_print_statement, STATE 11814),
    (sym_assert_statement, STATE 11814), (sym_comptime_assert_statement, STATE 11814),
    (sym_expression_statement, STATE 11814), (sym_tuple_expression, STATE 12425),
    (sym_named_expression, STATE 7969), (sym__named_expression_lhs, STATE 12752),
    (sym_return_statement, STATE 11814), (sym_delete_statement, STATE 11814),
    (sym_raise_statement, STATE 11814), (sym_pass_statement, STATE 11814),
    (sym_break_statement, STATE 11814), (sym_continue_statement, STATE 11814),
    (sym_extension_definition, STATE 925), (sym_mlir_region, STATE 925),
    (sym_comptime_statement, STATE 925), (sym_if_statement, STATE 925),
    (sym_match_statement, STATE 925), (sym_for_statement, STATE 925),
    (sym_while_statement, STATE 925), (sym_try_statement, STATE 925),
    (sym_with_statement, STATE 925), (sym_function_definition, STATE 925),
    (sym_global_statement, STATE 11814), (sym_nonlocal_statement, STATE 11814),
    (sym_exec_statement, STATE 11814), (sym_type_alias_statement, STATE 11814),
    (sym_parameterized_alias_statement, STATE 11814), (sym_class_definition, STATE 925),
    (sym_trait_definition, STATE 925), (sym_decorated_definition, STATE 925),
    (sym_decorator, STATE 3670), (sym_block, STATE 5598), (sym_pattern, STATE 8086),
    (sym_tuple_pattern, STATE 8101), (sym_list_pattern, STATE 8101),
    (sym_list_splat_pattern, STATE 6819), (sym_as_pattern, STATE 7969),
    (sym_expression, STATE 9883), (sym_primary_expression, STATE 7326),
    (sym_comptime_expression, STATE 7017), (sym_transfer_expression, STATE 7017),
    (sym_not_operator, STATE 7969), (sym_boolean_operator, STATE 7969),
    (sym_binary_operator, STATE 7017), (sym_unary_operator, STATE 7017),
    (sym_comparison_operator, STATE 7969), (sym_lambda, STATE 7969),
    (sym_assignment, STATE 12425), (sym_augmented_assignment, STATE 12425),
    (sym_pattern_list, STATE 8578), (sym_yield, STATE 12425), (sym_attribute, STATE 6836),
    (sym_subscript, STATE 6838), (sym_call, STATE 6845), (sym_mlir_type, STATE 7017),
    (sym_list, STATE 7017), (sym_set, STATE 7017), (sym_tuple, STATE 7017),
    (sym_dictionary, STATE 7017), (sym_struct_literal, STATE 7017),
    (sym_list_comprehension, STATE 7017), (sym_dictionary_comprehension, STATE 7017),
    (sym_set_comprehension, STATE 7017), (sym_generator_expression, STATE 7017),
    (sym_parenthesized_expression, STATE 7017), (sym_conditional_expression, STATE 7969),
    (sym_concatenated_string, STATE 7017), (sym_string, STATE 6751), (sym_await, STATE 7017),
    (aux_sym_module_repeat1, STATE 925), (aux_sym_decorated_definition_repeat1, STATE 3670),
    (sym_identifier, ACTIONS 9), (anon_sym_import, ACTIONS 11), (anon_sym_from, ACTIONS 13),
    (anon_sym_LPAREN, ACTIONS 15), (anon_sym_STAR, ACTIONS 17), (anon_sym_print, ACTIONS 19),
    (anon_sym_comptime, ACTIONS 99), (anon_sym_assert, ACTIONS 23),
    (anon_sym___comptime_assert, ACTIONS 25), (anon_sym_return, ACTIONS 27),
    (anon_sym_del, ACTIONS 29), (anon_sym_raise, ACTIONS 31), (anon_sym_pass, ACTIONS 33),
    (anon_sym_break, ACTIONS 35), (anon_sym_continue, ACTIONS 37),
    (anon_sym___extension, ACTIONS 101), (anon_sym___mlir_region, ACTIONS 103),
    (anon_sym_if, ACTIONS 105), (anon_sym_match, ACTIONS 107), (anon_sym_async, ACTIONS 109),
    (anon_sym_for, ACTIONS 111), (anon_sym_while, ACTIONS 113), (anon_sym_try, ACTIONS 115),
    (anon_sym_with, ACTIONS 117), (anon_sym_def, ACTIONS 119), (anon_sym_fn, ACTIONS 119),
    (anon_sym_LBRACK, ACTIONS 59), (anon_sym_LBRACE, ACTIONS 61), (anon_sym_global, ACTIONS 63),
    (anon_sym_nonlocal, ACTIONS 65), (anon_sym_exec, ACTIONS 67), (anon_sym_type, ACTIONS 69),
    (anon_sym_class, ACTIONS 121), (anon_sym_struct, ACTIONS 121), (anon_sym_mut, ACTIONS 73),
    (anon_sym_out, ACTIONS 73), (anon_sym_trait, ACTIONS 123), (anon_sym_AT, ACTIONS 77),
    (anon_sym_DASH, ACTIONS 79), (anon_sym_PLUS, ACTIONS 79), (anon_sym_ref, ACTIONS 81),
    (anon_sym_var, ACTIONS 81), (anon_sym_not, ACTIONS 83), (anon_sym_TILDE, ACTIONS 79),
    (anon_sym_lambda, ACTIONS 85), (anon_sym_yield, ACTIONS 87), (sym_ellipsis, ACTIONS 89),
    (anon_sym___mlir_type, ACTIONS 91), (sym_integer, ACTIONS 93), (sym_float, ACTIONS 89),
    (anon_sym_await, ACTIONS 95), (sym_true, ACTIONS 93), (sym_false, ACTIONS 93),
    (sym_none, ACTIONS 93), (sym_comment, ACTIONS 3), (sym_line_continuation, ACTIONS 3),
    (sym__dedent, ACTIONS 129), (sym_string_start, ACTIONS 97)]"

definition parse_table_447 :: "(nat \<times> nat) list" where "parse_table_447 = [
    (sym__statement, STATE 925), (sym__simple_statements, STATE 925),
    (sym_import_statement, STATE 11814), (sym_future_import_statement, STATE 11814),
    (sym_import_from_statement, STATE 11814), (sym_print_statement, STATE 11814),
    (sym_assert_statement, STATE 11814), (sym_comptime_assert_statement, STATE 11814),
    (sym_expression_statement, STATE 11814), (sym_tuple_expression, STATE 12425),
    (sym_named_expression, STATE 7969), (sym__named_expression_lhs, STATE 12752),
    (sym_return_statement, STATE 11814), (sym_delete_statement, STATE 11814),
    (sym_raise_statement, STATE 11814), (sym_pass_statement, STATE 11814),
    (sym_break_statement, STATE 11814), (sym_continue_statement, STATE 11814),
    (sym_extension_definition, STATE 925), (sym_mlir_region, STATE 925),
    (sym_comptime_statement, STATE 925), (sym_if_statement, STATE 925),
    (sym_match_statement, STATE 925), (sym_for_statement, STATE 925),
    (sym_while_statement, STATE 925), (sym_try_statement, STATE 925),
    (sym_with_statement, STATE 925), (sym_function_definition, STATE 925),
    (sym_global_statement, STATE 11814), (sym_nonlocal_statement, STATE 11814),
    (sym_exec_statement, STATE 11814), (sym_type_alias_statement, STATE 11814),
    (sym_parameterized_alias_statement, STATE 11814), (sym_class_definition, STATE 925),
    (sym_trait_definition, STATE 925), (sym_decorated_definition, STATE 925),
    (sym_decorator, STATE 3670), (sym_block, STATE 4449), (sym_pattern, STATE 8086),
    (sym_tuple_pattern, STATE 8101), (sym_list_pattern, STATE 8101),
    (sym_list_splat_pattern, STATE 6819), (sym_as_pattern, STATE 7969),
    (sym_expression, STATE 9883), (sym_primary_expression, STATE 7326),
    (sym_comptime_expression, STATE 7017), (sym_transfer_expression, STATE 7017),
    (sym_not_operator, STATE 7969), (sym_boolean_operator, STATE 7969),
    (sym_binary_operator, STATE 7017), (sym_unary_operator, STATE 7017),
    (sym_comparison_operator, STATE 7969), (sym_lambda, STATE 7969),
    (sym_assignment, STATE 12425), (sym_augmented_assignment, STATE 12425),
    (sym_pattern_list, STATE 8578), (sym_yield, STATE 12425), (sym_attribute, STATE 6836),
    (sym_subscript, STATE 6838), (sym_call, STATE 6845), (sym_mlir_type, STATE 7017),
    (sym_list, STATE 7017), (sym_set, STATE 7017), (sym_tuple, STATE 7017),
    (sym_dictionary, STATE 7017), (sym_struct_literal, STATE 7017),
    (sym_list_comprehension, STATE 7017), (sym_dictionary_comprehension, STATE 7017),
    (sym_set_comprehension, STATE 7017), (sym_generator_expression, STATE 7017),
    (sym_parenthesized_expression, STATE 7017), (sym_conditional_expression, STATE 7969),
    (sym_concatenated_string, STATE 7017), (sym_string, STATE 6751), (sym_await, STATE 7017),
    (aux_sym_module_repeat1, STATE 925), (aux_sym_decorated_definition_repeat1, STATE 3670),
    (sym_identifier, ACTIONS 9), (anon_sym_import, ACTIONS 11), (anon_sym_from, ACTIONS 13),
    (anon_sym_LPAREN, ACTIONS 15), (anon_sym_STAR, ACTIONS 17), (anon_sym_print, ACTIONS 19),
    (anon_sym_comptime, ACTIONS 99), (anon_sym_assert, ACTIONS 23),
    (anon_sym___comptime_assert, ACTIONS 25), (anon_sym_return, ACTIONS 27),
    (anon_sym_del, ACTIONS 29), (anon_sym_raise, ACTIONS 31), (anon_sym_pass, ACTIONS 33),
    (anon_sym_break, ACTIONS 35), (anon_sym_continue, ACTIONS 37),
    (anon_sym___extension, ACTIONS 101), (anon_sym___mlir_region, ACTIONS 103),
    (anon_sym_if, ACTIONS 105), (anon_sym_match, ACTIONS 107), (anon_sym_async, ACTIONS 109),
    (anon_sym_for, ACTIONS 111), (anon_sym_while, ACTIONS 113), (anon_sym_try, ACTIONS 115),
    (anon_sym_with, ACTIONS 117), (anon_sym_def, ACTIONS 119), (anon_sym_fn, ACTIONS 119),
    (anon_sym_LBRACK, ACTIONS 59), (anon_sym_LBRACE, ACTIONS 61), (anon_sym_global, ACTIONS 63),
    (anon_sym_nonlocal, ACTIONS 65), (anon_sym_exec, ACTIONS 67), (anon_sym_type, ACTIONS 69),
    (anon_sym_class, ACTIONS 121), (anon_sym_struct, ACTIONS 121), (anon_sym_mut, ACTIONS 73),
    (anon_sym_out, ACTIONS 73), (anon_sym_trait, ACTIONS 123), (anon_sym_AT, ACTIONS 77),
    (anon_sym_DASH, ACTIONS 79), (anon_sym_PLUS, ACTIONS 79), (anon_sym_ref, ACTIONS 81),
    (anon_sym_var, ACTIONS 81), (anon_sym_not, ACTIONS 83), (anon_sym_TILDE, ACTIONS 79),
    (anon_sym_lambda, ACTIONS 85), (anon_sym_yield, ACTIONS 87), (sym_ellipsis, ACTIONS 89),
    (anon_sym___mlir_type, ACTIONS 91), (sym_integer, ACTIONS 93), (sym_float, ACTIONS 89),
    (anon_sym_await, ACTIONS 95), (sym_true, ACTIONS 93), (sym_false, ACTIONS 93),
    (sym_none, ACTIONS 93), (sym_comment, ACTIONS 3), (sym_line_continuation, ACTIONS 3),
    (sym__dedent, ACTIONS 129), (sym_string_start, ACTIONS 97)]"

definition parse_table_448 :: "(nat \<times> nat) list" where "parse_table_448 = [
    (sym__statement, STATE 925), (sym__simple_statements, STATE 925),
    (sym_import_statement, STATE 11814), (sym_future_import_statement, STATE 11814),
    (sym_import_from_statement, STATE 11814), (sym_print_statement, STATE 11814),
    (sym_assert_statement, STATE 11814), (sym_comptime_assert_statement, STATE 11814),
    (sym_expression_statement, STATE 11814), (sym_tuple_expression, STATE 12425),
    (sym_named_expression, STATE 7969), (sym__named_expression_lhs, STATE 12752),
    (sym_return_statement, STATE 11814), (sym_delete_statement, STATE 11814),
    (sym_raise_statement, STATE 11814), (sym_pass_statement, STATE 11814),
    (sym_break_statement, STATE 11814), (sym_continue_statement, STATE 11814),
    (sym_extension_definition, STATE 925), (sym_mlir_region, STATE 925),
    (sym_comptime_statement, STATE 925), (sym_if_statement, STATE 925),
    (sym_match_statement, STATE 925), (sym_for_statement, STATE 925),
    (sym_while_statement, STATE 925), (sym_try_statement, STATE 925),
    (sym_with_statement, STATE 925), (sym_function_definition, STATE 925),
    (sym_global_statement, STATE 11814), (sym_nonlocal_statement, STATE 11814),
    (sym_exec_statement, STATE 11814), (sym_type_alias_statement, STATE 11814),
    (sym_parameterized_alias_statement, STATE 11814), (sym_class_definition, STATE 925),
    (sym_trait_definition, STATE 925), (sym_decorated_definition, STATE 925),
    (sym_decorator, STATE 3670), (sym_block, STATE 4457), (sym_pattern, STATE 8086),
    (sym_tuple_pattern, STATE 8101), (sym_list_pattern, STATE 8101),
    (sym_list_splat_pattern, STATE 6819), (sym_as_pattern, STATE 7969),
    (sym_expression, STATE 9883), (sym_primary_expression, STATE 7326),
    (sym_comptime_expression, STATE 7017), (sym_transfer_expression, STATE 7017),
    (sym_not_operator, STATE 7969), (sym_boolean_operator, STATE 7969),
    (sym_binary_operator, STATE 7017), (sym_unary_operator, STATE 7017),
    (sym_comparison_operator, STATE 7969), (sym_lambda, STATE 7969),
    (sym_assignment, STATE 12425), (sym_augmented_assignment, STATE 12425),
    (sym_pattern_list, STATE 8578), (sym_yield, STATE 12425), (sym_attribute, STATE 6836),
    (sym_subscript, STATE 6838), (sym_call, STATE 6845), (sym_mlir_type, STATE 7017),
    (sym_list, STATE 7017), (sym_set, STATE 7017), (sym_tuple, STATE 7017),
    (sym_dictionary, STATE 7017), (sym_struct_literal, STATE 7017),
    (sym_list_comprehension, STATE 7017), (sym_dictionary_comprehension, STATE 7017),
    (sym_set_comprehension, STATE 7017), (sym_generator_expression, STATE 7017),
    (sym_parenthesized_expression, STATE 7017), (sym_conditional_expression, STATE 7969),
    (sym_concatenated_string, STATE 7017), (sym_string, STATE 6751), (sym_await, STATE 7017),
    (aux_sym_module_repeat1, STATE 925), (aux_sym_decorated_definition_repeat1, STATE 3670),
    (sym_identifier, ACTIONS 9), (anon_sym_import, ACTIONS 11), (anon_sym_from, ACTIONS 13),
    (anon_sym_LPAREN, ACTIONS 15), (anon_sym_STAR, ACTIONS 17), (anon_sym_print, ACTIONS 19),
    (anon_sym_comptime, ACTIONS 99), (anon_sym_assert, ACTIONS 23),
    (anon_sym___comptime_assert, ACTIONS 25), (anon_sym_return, ACTIONS 27),
    (anon_sym_del, ACTIONS 29), (anon_sym_raise, ACTIONS 31), (anon_sym_pass, ACTIONS 33),
    (anon_sym_break, ACTIONS 35), (anon_sym_continue, ACTIONS 37),
    (anon_sym___extension, ACTIONS 101), (anon_sym___mlir_region, ACTIONS 103),
    (anon_sym_if, ACTIONS 105), (anon_sym_match, ACTIONS 107), (anon_sym_async, ACTIONS 109),
    (anon_sym_for, ACTIONS 111), (anon_sym_while, ACTIONS 113), (anon_sym_try, ACTIONS 115),
    (anon_sym_with, ACTIONS 117), (anon_sym_def, ACTIONS 119), (anon_sym_fn, ACTIONS 119),
    (anon_sym_LBRACK, ACTIONS 59), (anon_sym_LBRACE, ACTIONS 61), (anon_sym_global, ACTIONS 63),
    (anon_sym_nonlocal, ACTIONS 65), (anon_sym_exec, ACTIONS 67), (anon_sym_type, ACTIONS 69),
    (anon_sym_class, ACTIONS 121), (anon_sym_struct, ACTIONS 121), (anon_sym_mut, ACTIONS 73),
    (anon_sym_out, ACTIONS 73), (anon_sym_trait, ACTIONS 123), (anon_sym_AT, ACTIONS 77),
    (anon_sym_DASH, ACTIONS 79), (anon_sym_PLUS, ACTIONS 79), (anon_sym_ref, ACTIONS 81),
    (anon_sym_var, ACTIONS 81), (anon_sym_not, ACTIONS 83), (anon_sym_TILDE, ACTIONS 79),
    (anon_sym_lambda, ACTIONS 85), (anon_sym_yield, ACTIONS 87), (sym_ellipsis, ACTIONS 89),
    (anon_sym___mlir_type, ACTIONS 91), (sym_integer, ACTIONS 93), (sym_float, ACTIONS 89),
    (anon_sym_await, ACTIONS 95), (sym_true, ACTIONS 93), (sym_false, ACTIONS 93),
    (sym_none, ACTIONS 93), (sym_comment, ACTIONS 3), (sym_line_continuation, ACTIONS 3),
    (sym__dedent, ACTIONS 129), (sym_string_start, ACTIONS 97)]"

definition parse_table_449 :: "(nat \<times> nat) list" where "parse_table_449 = [
    (sym__statement, STATE 925), (sym__simple_statements, STATE 925),
    (sym_import_statement, STATE 11814), (sym_future_import_statement, STATE 11814),
    (sym_import_from_statement, STATE 11814), (sym_print_statement, STATE 11814),
    (sym_assert_statement, STATE 11814), (sym_comptime_assert_statement, STATE 11814),
    (sym_expression_statement, STATE 11814), (sym_tuple_expression, STATE 12425),
    (sym_named_expression, STATE 7969), (sym__named_expression_lhs, STATE 12752),
    (sym_return_statement, STATE 11814), (sym_delete_statement, STATE 11814),
    (sym_raise_statement, STATE 11814), (sym_pass_statement, STATE 11814),
    (sym_break_statement, STATE 11814), (sym_continue_statement, STATE 11814),
    (sym_extension_definition, STATE 925), (sym_mlir_region, STATE 925),
    (sym_comptime_statement, STATE 925), (sym_if_statement, STATE 925),
    (sym_match_statement, STATE 925), (sym_for_statement, STATE 925),
    (sym_while_statement, STATE 925), (sym_try_statement, STATE 925),
    (sym_with_statement, STATE 925), (sym_function_definition, STATE 925),
    (sym_global_statement, STATE 11814), (sym_nonlocal_statement, STATE 11814),
    (sym_exec_statement, STATE 11814), (sym_type_alias_statement, STATE 11814),
    (sym_parameterized_alias_statement, STATE 11814), (sym_class_definition, STATE 925),
    (sym_trait_definition, STATE 925), (sym_decorated_definition, STATE 925),
    (sym_decorator, STATE 3670), (sym_block, STATE 4467), (sym_pattern, STATE 8086),
    (sym_tuple_pattern, STATE 8101), (sym_list_pattern, STATE 8101),
    (sym_list_splat_pattern, STATE 6819), (sym_as_pattern, STATE 7969),
    (sym_expression, STATE 9883), (sym_primary_expression, STATE 7326),
    (sym_comptime_expression, STATE 7017), (sym_transfer_expression, STATE 7017),
    (sym_not_operator, STATE 7969), (sym_boolean_operator, STATE 7969),
    (sym_binary_operator, STATE 7017), (sym_unary_operator, STATE 7017),
    (sym_comparison_operator, STATE 7969), (sym_lambda, STATE 7969),
    (sym_assignment, STATE 12425), (sym_augmented_assignment, STATE 12425),
    (sym_pattern_list, STATE 8578), (sym_yield, STATE 12425), (sym_attribute, STATE 6836),
    (sym_subscript, STATE 6838), (sym_call, STATE 6845), (sym_mlir_type, STATE 7017),
    (sym_list, STATE 7017), (sym_set, STATE 7017), (sym_tuple, STATE 7017),
    (sym_dictionary, STATE 7017), (sym_struct_literal, STATE 7017),
    (sym_list_comprehension, STATE 7017), (sym_dictionary_comprehension, STATE 7017),
    (sym_set_comprehension, STATE 7017), (sym_generator_expression, STATE 7017),
    (sym_parenthesized_expression, STATE 7017), (sym_conditional_expression, STATE 7969),
    (sym_concatenated_string, STATE 7017), (sym_string, STATE 6751), (sym_await, STATE 7017),
    (aux_sym_module_repeat1, STATE 925), (aux_sym_decorated_definition_repeat1, STATE 3670),
    (sym_identifier, ACTIONS 9), (anon_sym_import, ACTIONS 11), (anon_sym_from, ACTIONS 13),
    (anon_sym_LPAREN, ACTIONS 15), (anon_sym_STAR, ACTIONS 17), (anon_sym_print, ACTIONS 19),
    (anon_sym_comptime, ACTIONS 99), (anon_sym_assert, ACTIONS 23),
    (anon_sym___comptime_assert, ACTIONS 25), (anon_sym_return, ACTIONS 27),
    (anon_sym_del, ACTIONS 29), (anon_sym_raise, ACTIONS 31), (anon_sym_pass, ACTIONS 33),
    (anon_sym_break, ACTIONS 35), (anon_sym_continue, ACTIONS 37),
    (anon_sym___extension, ACTIONS 101), (anon_sym___mlir_region, ACTIONS 103),
    (anon_sym_if, ACTIONS 105), (anon_sym_match, ACTIONS 107), (anon_sym_async, ACTIONS 109),
    (anon_sym_for, ACTIONS 111), (anon_sym_while, ACTIONS 113), (anon_sym_try, ACTIONS 115),
    (anon_sym_with, ACTIONS 117), (anon_sym_def, ACTIONS 119), (anon_sym_fn, ACTIONS 119),
    (anon_sym_LBRACK, ACTIONS 59), (anon_sym_LBRACE, ACTIONS 61), (anon_sym_global, ACTIONS 63),
    (anon_sym_nonlocal, ACTIONS 65), (anon_sym_exec, ACTIONS 67), (anon_sym_type, ACTIONS 69),
    (anon_sym_class, ACTIONS 121), (anon_sym_struct, ACTIONS 121), (anon_sym_mut, ACTIONS 73),
    (anon_sym_out, ACTIONS 73), (anon_sym_trait, ACTIONS 123), (anon_sym_AT, ACTIONS 77),
    (anon_sym_DASH, ACTIONS 79), (anon_sym_PLUS, ACTIONS 79), (anon_sym_ref, ACTIONS 81),
    (anon_sym_var, ACTIONS 81), (anon_sym_not, ACTIONS 83), (anon_sym_TILDE, ACTIONS 79),
    (anon_sym_lambda, ACTIONS 85), (anon_sym_yield, ACTIONS 87), (sym_ellipsis, ACTIONS 89),
    (anon_sym___mlir_type, ACTIONS 91), (sym_integer, ACTIONS 93), (sym_float, ACTIONS 89),
    (anon_sym_await, ACTIONS 95), (sym_true, ACTIONS 93), (sym_false, ACTIONS 93),
    (sym_none, ACTIONS 93), (sym_comment, ACTIONS 3), (sym_line_continuation, ACTIONS 3),
    (sym__dedent, ACTIONS 129), (sym_string_start, ACTIONS 97)]"

end
