(* ===== verification/Mojo_Parse_Rows_3.thy ===== *)
theory Mojo_Parse_Rows_3
  imports Mojo_Grammar Mojo_Table_Macros
begin

text \<open>
  The rows of \<open>ts_parse_table\<close> (\<^verbatim>\<open>grammars/tree-sitter-mojo/src/parser.c\<close>) for the parse states from
  450 to 599: for a symbol, the group of actions in \<open>ts_parse_actions\<close> for a token and the next state
  for a nonterminal. Definitions only, one for each state.
\<close>

section \<open>Rows\<close>

definition parse_table_450 :: "(nat \<times> nat) list" where "parse_table_450 = [
    (sym__statement, STATE 925), (sym__simple_statements, STATE 925),
    (sym_import_statement, STATE 11814), (sym_future_import_statement, STATE 11814),
    (sym_import_from_statement, STATE 11814), (sym_print_statement, STATE 11814),
    (sym_assert_statement, STATE 11814), (sym_comptime_assert_statement, STATE 11814),
    (sym_expression_statement, STATE 11814), (sym_tuple_expression, STATE 12425),
    (sym_named_expression, STATE 7969), (sym__named_expression_lhs, STATE 12752),
    (sym_return_statement, STATE 11814), (sym_delete_statement, STATE 11814),
    (sym_raise_statement, STATE 11814), (sym_pass_statement, STATE 11814),
    (sym_break_statement, STATE 11814), (sym_continue_statement, STATE 11814),
    (sym_extension_definition, STATE 925), (sym_mlir_region, STATE 925),
    (sym_comptime_statement, STATE 925), (sym_if_statement, STATE 925),
    (sym_match_statement, STATE 925), (sym_for_statement, STATE 925),
    (sym_while_statement, STATE 925), (sym_try_statement, STATE 925),
    (sym_with_statement, STATE 925), (sym_function_definition, STATE 925),
    (sym_global_statement, STATE 11814), (sym_nonlocal_statement, STATE 11814),
    (sym_exec_statement, STATE 11814), (sym_type_alias_statement, STATE 11814),
    (sym_parameterized_alias_statement, STATE 11814), (sym_class_definition, STATE 925),
    (sym_trait_definition, STATE 925), (sym_decorated_definition, STATE 925),
    (sym_decorator, STATE 3670), (sym_block, STATE 4488), (sym_pattern, STATE 8086),
    (sym_tuple_pattern, STATE 8101), (sym_list_pattern, STATE 8101),
    (sym_list_splat_pattern, STATE 6819), (sym_as_pattern, STATE 7969),
    (sym_expression, STATE 9883), (sym_primary_expression, STATE 7326),
    (sym_comptime_expression, STATE 7017), (sym_transfer_expression, STATE 7017),
    (sym_not_operator, STATE 7969), (sym_boolean_operator, STATE 7969),
    (sym_binary_operator, STATE 7017), (sym_unary_operator, STATE 7017),
    (sym_comparison_operator, STATE 7969), (sym_lambda, STATE 7969),
    (sym_assignment, STATE 12425), (sym_augmented_assignment, STATE 12425),
    (sym_pattern_list, STATE 8578), (sym_yield, STATE 12425), (sym_attribute, STATE 6836),
    (sym_subscript, STATE 6838), (sym_call, STATE 6845), (sym_mlir_type, STATE 7017),
    (sym_list, STATE 7017), (sym_set, STATE 7017), (sym_tuple, STATE 7017),
    (sym_dictionary, STATE 7017), (sym_struct_literal, STATE 7017),
    (sym_list_comprehension, STATE 7017), (sym_dictionary_comprehension, STATE 7017),
    (sym_set_comprehension, STATE 7017), (sym_generator_expression, STATE 7017),
    (sym_parenthesized_expression, STATE 7017), (sym_conditional_expression, STATE 7969),
    (sym_concatenated_string, STATE 7017), (sym_string, STATE 6751), (sym_await, STATE 7017),
    (aux_sym_module_repeat1, STATE 925), (aux_sym_decorated_definition_repeat1, STATE 3670),
    (sym_identifier, ACTIONS 9), (anon_sym_import, ACTIONS 11), (anon_sym_from, ACTIONS 13),
    (anon_sym_LPAREN, ACTIONS 15), (anon_sym_STAR, ACTIONS 17), (anon_sym_print, ACTIONS 19),
    (anon_sym_comptime, ACTIONS 99), (anon_sym_assert, ACTIONS 23),
    (anon_sym___comptime_assert, ACTIONS 25), (anon_sym_return, ACTIONS 27),
    (anon_sym_del, ACTIONS 29), (anon_sym_raise, ACTIONS 31), (anon_sym_pass, ACTIONS 33),
    (anon_sym_break, ACTIONS 35), (anon_sym_continue, ACTIONS 37),
    (anon_sym___extension, ACTIONS 101), (anon_sym___mlir_region, ACTIONS 103),
    (anon_sym_if, ACTIONS 105), (anon_sym_match, ACTIONS 107), (anon_sym_async, ACTIONS 109),
    (anon_sym_for, ACTIONS 111), (anon_sym_while, ACTIONS 113), (anon_sym_try, ACTIONS 115),
    (anon_sym_with, ACTIONS 117), (anon_sym_def, ACTIONS 119), (anon_sym_fn, ACTIONS 119),
    (anon_sym_LBRACK, ACTIONS 59), (anon_sym_LBRACE, ACTIONS 61), (anon_sym_global, ACTIONS 63),
    (anon_sym_nonlocal, ACTIONS 65), (anon_sym_exec, ACTIONS 67), (anon_sym_type, ACTIONS 69),
    (anon_sym_class, ACTIONS 121), (anon_sym_struct, ACTIONS 121), (anon_sym_mut, ACTIONS 73),
    (anon_sym_out, ACTIONS 73), (anon_sym_trait, ACTIONS 123), (anon_sym_AT, ACTIONS 77),
    (anon_sym_DASH, ACTIONS 79), (anon_sym_PLUS, ACTIONS 79), (anon_sym_ref, ACTIONS 81),
    (anon_sym_var, ACTIONS 81), (anon_sym_not, ACTIONS 83), (anon_sym_TILDE, ACTIONS 79),
    (anon_sym_lambda, ACTIONS 85), (anon_sym_yield, ACTIONS 87), (sym_ellipsis, ACTIONS 89),
    (anon_sym___mlir_type, ACTIONS 91), (sym_integer, ACTIONS 93), (sym_float, ACTIONS 89),
    (anon_sym_await, ACTIONS 95), (sym_true, ACTIONS 93), (sym_false, ACTIONS 93),
    (sym_none, ACTIONS 93), (sym_comment, ACTIONS 3), (sym_line_continuation, ACTIONS 3),
    (sym__dedent, ACTIONS 129), (sym_string_start, ACTIONS 97)]"

definition parse_table_451 :: "(nat \<times> nat) list" where "parse_table_451 = [
    (sym__statement, STATE 925), (sym__simple_statements, STATE 925),
    (sym_import_statement, STATE 11814), (sym_future_import_statement, STATE 11814),
    (sym_import_from_statement, STATE 11814), (sym_print_statement, STATE 11814),
    (sym_assert_statement, STATE 11814), (sym_comptime_assert_statement, STATE 11814),
    (sym_expression_statement, STATE 11814), (sym_tuple_expression, STATE 12425),
    (sym_named_expression, STATE 7969), (sym__named_expression_lhs, STATE 12752),
    (sym_return_statement, STATE 11814), (sym_delete_statement, STATE 11814),
    (sym_raise_statement, STATE 11814), (sym_pass_statement, STATE 11814),
    (sym_break_statement, STATE 11814), (sym_continue_statement, STATE 11814),
    (sym_extension_definition, STATE 925), (sym_mlir_region, STATE 925),
    (sym_comptime_statement, STATE 925), (sym_if_statement, STATE 925),
    (sym_match_statement, STATE 925), (sym_for_statement, STATE 925),
    (sym_while_statement, STATE 925), (sym_try_statement, STATE 925),
    (sym_with_statement, STATE 925), (sym_function_definition, STATE 925),
    (sym_global_statement, STATE 11814), (sym_nonlocal_statement, STATE 11814),
    (sym_exec_statement, STATE 11814), (sym_type_alias_statement, STATE 11814),
    (sym_parameterized_alias_statement, STATE 11814), (sym_class_definition, STATE 925),
    (sym_trait_definition, STATE 925), (sym_decorated_definition, STATE 925),
    (sym_decorator, STATE 3670), (sym_block, STATE 4490), (sym_pattern, STATE 8086),
    (sym_tuple_pattern, STATE 8101), (sym_list_pattern, STATE 8101),
    (sym_list_splat_pattern, STATE 6819), (sym_as_pattern, STATE 7969),
    (sym_expression, STATE 9883), (sym_primary_expression, STATE 7326),
    (sym_comptime_expression, STATE 7017), (sym_transfer_expression, STATE 7017),
    (sym_not_operator, STATE 7969), (sym_boolean_operator, STATE 7969),
    (sym_binary_operator, STATE 7017), (sym_unary_operator, STATE 7017),
    (sym_comparison_operator, STATE 7969), (sym_lambda, STATE 7969),
    (sym_assignment, STATE 12425), (sym_augmented_assignment, STATE 12425),
    (sym_pattern_list, STATE 8578), (sym_yield, STATE 12425), (sym_attribute, STATE 6836),
    (sym_subscript, STATE 6838), (sym_call, STATE 6845), (sym_mlir_type, STATE 7017),
    (sym_list, STATE 7017), (sym_set, STATE 7017), (sym_tuple, STATE 7017),
    (sym_dictionary, STATE 7017), (sym_struct_literal, STATE 7017),
    (sym_list_comprehension, STATE 7017), (sym_dictionary_comprehension, STATE 7017),
    (sym_set_comprehension, STATE 7017), (sym_generator_expression, STATE 7017),
    (sym_parenthesized_expression, STATE 7017), (sym_conditional_expression, STATE 7969),
    (sym_concatenated_string, STATE 7017), (sym_string, STATE 6751), (sym_await, STATE 7017),
    (aux_sym_module_repeat1, STATE 925), (aux_sym_decorated_definition_repeat1, STATE 3670),
    (sym_identifier, ACTIONS 9), (anon_sym_import, ACTIONS 11), (anon_sym_from, ACTIONS 13),
    (anon_sym_LPAREN, ACTIONS 15), (anon_sym_STAR, ACTIONS 17), (anon_sym_print, ACTIONS 19),
    (anon_sym_comptime, ACTIONS 99), (anon_sym_assert, ACTIONS 23),
    (anon_sym___comptime_assert, ACTIONS 25), (anon_sym_return, ACTIONS 27),
    (anon_sym_del, ACTIONS 29), (anon_sym_raise, ACTIONS 31), (anon_sym_pass, ACTIONS 33),
    (anon_sym_break, ACTIONS 35), (anon_sym_continue, ACTIONS 37),
    (anon_sym___extension, ACTIONS 101), (anon_sym___mlir_region, ACTIONS 103),
    (anon_sym_if, ACTIONS 105), (anon_sym_match, ACTIONS 107), (anon_sym_async, ACTIONS 109),
    (anon_sym_for, ACTIONS 111), (anon_sym_while, ACTIONS 113), (anon_sym_try, ACTIONS 115),
    (anon_sym_with, ACTIONS 117), (anon_sym_def, ACTIONS 119), (anon_sym_fn, ACTIONS 119),
    (anon_sym_LBRACK, ACTIONS 59), (anon_sym_LBRACE, ACTIONS 61), (anon_sym_global, ACTIONS 63),
    (anon_sym_nonlocal, ACTIONS 65), (anon_sym_exec, ACTIONS 67), (anon_sym_type, ACTIONS 69),
    (anon_sym_class, ACTIONS 121), (anon_sym_struct, ACTIONS 121), (anon_sym_mut, ACTIONS 73),
    (anon_sym_out, ACTIONS 73), (anon_sym_trait, ACTIONS 123), (anon_sym_AT, ACTIONS 77),
    (anon_sym_DASH, ACTIONS 79), (anon_sym_PLUS, ACTIONS 79), (anon_sym_ref, ACTIONS 81),
    (anon_sym_var, ACTIONS 81), (anon_sym_not, ACTIONS 83), (anon_sym_TILDE, ACTIONS 79),
    (anon_sym_lambda, ACTIONS 85), (anon_sym_yield, ACTIONS 87), (sym_ellipsis, ACTIONS 89),
    (anon_sym___mlir_type, ACTIONS 91), (sym_integer, ACTIONS 93), (sym_float, ACTIONS 89),
    (anon_sym_await, ACTIONS 95), (sym_true, ACTIONS 93), (sym_false, ACTIONS 93),
    (sym_none, ACTIONS 93), (sym_comment, ACTIONS 3), (sym_line_continuation, ACTIONS 3),
    (sym__dedent, ACTIONS 129), (sym_string_start, ACTIONS 97)]"

definition parse_table_452 :: "(nat \<times> nat) list" where "parse_table_452 = [
    (sym__statement, STATE 925), (sym__simple_statements, STATE 925),
    (sym_import_statement, STATE 11814), (sym_future_import_statement, STATE 11814),
    (sym_import_from_statement, STATE 11814), (sym_print_statement, STATE 11814),
    (sym_assert_statement, STATE 11814), (sym_comptime_assert_statement, STATE 11814),
    (sym_expression_statement, STATE 11814), (sym_tuple_expression, STATE 12425),
    (sym_named_expression, STATE 7969), (sym__named_expression_lhs, STATE 12752),
    (sym_return_statement, STATE 11814), (sym_delete_statement, STATE 11814),
    (sym_raise_statement, STATE 11814), (sym_pass_statement, STATE 11814),
    (sym_break_statement, STATE 11814), (sym_continue_statement, STATE 11814),
    (sym_extension_definition, STATE 925), (sym_mlir_region, STATE 925),
    (sym_comptime_statement, STATE 925), (sym_if_statement, STATE 925),
    (sym_match_statement, STATE 925), (sym_for_statement, STATE 925),
    (sym_while_statement, STATE 925), (sym_try_statement, STATE 925),
    (sym_with_statement, STATE 925), (sym_function_definition, STATE 925),
    (sym_global_statement, STATE 11814), (sym_nonlocal_statement, STATE 11814),
    (sym_exec_statement, STATE 11814), (sym_type_alias_statement, STATE 11814),
    (sym_parameterized_alias_statement, STATE 11814), (sym_class_definition, STATE 925),
    (sym_trait_definition, STATE 925), (sym_decorated_definition, STATE 925),
    (sym_decorator, STATE 3670), (sym_block, STATE 4492), (sym_pattern, STATE 8086),
    (sym_tuple_pattern, STATE 8101), (sym_list_pattern, STATE 8101),
    (sym_list_splat_pattern, STATE 6819), (sym_as_pattern, STATE 7969),
    (sym_expression, STATE 9883), (sym_primary_expression, STATE 7326),
    (sym_comptime_expression, STATE 7017), (sym_transfer_expression, STATE 7017),
    (sym_not_operator, STATE 7969), (sym_boolean_operator, STATE 7969),
    (sym_binary_operator, STATE 7017), (sym_unary_operator, STATE 7017),
    (sym_comparison_operator, STATE 7969), (sym_lambda, STATE 7969),
    (sym_assignment, STATE 12425), (sym_augmented_assignment, STATE 12425),
    (sym_pattern_list, STATE 8578), (sym_yield, STATE 12425), (sym_attribute, STATE 6836),
    (sym_subscript, STATE 6838), (sym_call, STATE 6845), (sym_mlir_type, STATE 7017),
    (sym_list, STATE 7017), (sym_set, STATE 7017), (sym_tuple, STATE 7017),
    (sym_dictionary, STATE 7017), (sym_struct_literal, STATE 7017),
    (sym_list_comprehension, STATE 7017), (sym_dictionary_comprehension, STATE 7017),
    (sym_set_comprehension, STATE 7017), (sym_generator_expression, STATE 7017),
    (sym_parenthesized_expression, STATE 7017), (sym_conditional_expression, STATE 7969),
    (sym_concatenated_string, STATE 7017), (sym_string, STATE 6751), (sym_await, STATE 7017),
    (aux_sym_module_repeat1, STATE 925), (aux_sym_decorated_definition_repeat1, STATE 3670),
    (sym_identifier, ACTIONS 9), (anon_sym_import, ACTIONS 11), (anon_sym_from, ACTIONS 13),
    (anon_sym_LPAREN, ACTIONS 15), (anon_sym_STAR, ACTIONS 17), (anon_sym_print, ACTIONS 19),
    (anon_sym_comptime, ACTIONS 99), (anon_sym_assert, ACTIONS 23),
    (anon_sym___comptime_assert, ACTIONS 25), (anon_sym_return, ACTIONS 27),
    (anon_sym_del, ACTIONS 29), (anon_sym_raise, ACTIONS 31), (anon_sym_pass, ACTIONS 33),
    (anon_sym_break, ACTIONS 35), (anon_sym_continue, ACTIONS 37),
    (anon_sym___extension, ACTIONS 101), (anon_sym___mlir_region, ACTIONS 103),
    (anon_sym_if, ACTIONS 105), (anon_sym_match, ACTIONS 107), (anon_sym_async, ACTIONS 109),
    (anon_sym_for, ACTIONS 111), (anon_sym_while, ACTIONS 113), (anon_sym_try, ACTIONS 115),
    (anon_sym_with, ACTIONS 117), (anon_sym_def, ACTIONS 119), (anon_sym_fn, ACTIONS 119),
    (anon_sym_LBRACK, ACTIONS 59), (anon_sym_LBRACE, ACTIONS 61), (anon_sym_global, ACTIONS 63),
    (anon_sym_nonlocal, ACTIONS 65), (anon_sym_exec, ACTIONS 67), (anon_sym_type, ACTIONS 69),
    (anon_sym_class, ACTIONS 121), (anon_sym_struct, ACTIONS 121), (anon_sym_mut, ACTIONS 73),
    (anon_sym_out, ACTIONS 73), (anon_sym_trait, ACTIONS 123), (anon_sym_AT, ACTIONS 77),
    (anon_sym_DASH, ACTIONS 79), (anon_sym_PLUS, ACTIONS 79), (anon_sym_ref, ACTIONS 81),
    (anon_sym_var, ACTIONS 81), (anon_sym_not, ACTIONS 83), (anon_sym_TILDE, ACTIONS 79),
    (anon_sym_lambda, ACTIONS 85), (anon_sym_yield, ACTIONS 87), (sym_ellipsis, ACTIONS 89),
    (anon_sym___mlir_type, ACTIONS 91), (sym_integer, ACTIONS 93), (sym_float, ACTIONS 89),
    (anon_sym_await, ACTIONS 95), (sym_true, ACTIONS 93), (sym_false, ACTIONS 93),
    (sym_none, ACTIONS 93), (sym_comment, ACTIONS 3), (sym_line_continuation, ACTIONS 3),
    (sym__dedent, ACTIONS 129), (sym_string_start, ACTIONS 97)]"

definition parse_table_453 :: "(nat \<times> nat) list" where "parse_table_453 = [
    (sym__statement, STATE 925), (sym__simple_statements, STATE 925),
    (sym_import_statement, STATE 11814), (sym_future_import_statement, STATE 11814),
    (sym_import_from_statement, STATE 11814), (sym_print_statement, STATE 11814),
    (sym_assert_statement, STATE 11814), (sym_comptime_assert_statement, STATE 11814),
    (sym_expression_statement, STATE 11814), (sym_tuple_expression, STATE 12425),
    (sym_named_expression, STATE 7969), (sym__named_expression_lhs, STATE 12752),
    (sym_return_statement, STATE 11814), (sym_delete_statement, STATE 11814),
    (sym_raise_statement, STATE 11814), (sym_pass_statement, STATE 11814),
    (sym_break_statement, STATE 11814), (sym_continue_statement, STATE 11814),
    (sym_extension_definition, STATE 925), (sym_mlir_region, STATE 925),
    (sym_comptime_statement, STATE 925), (sym_if_statement, STATE 925),
    (sym_match_statement, STATE 925), (sym_for_statement, STATE 925),
    (sym_while_statement, STATE 925), (sym_try_statement, STATE 925),
    (sym_with_statement, STATE 925), (sym_function_definition, STATE 925),
    (sym_global_statement, STATE 11814), (sym_nonlocal_statement, STATE 11814),
    (sym_exec_statement, STATE 11814), (sym_type_alias_statement, STATE 11814),
    (sym_parameterized_alias_statement, STATE 11814), (sym_class_definition, STATE 925),
    (sym_trait_definition, STATE 925), (sym_decorated_definition, STATE 925),
    (sym_decorator, STATE 3670), (sym_block, STATE 4493), (sym_pattern, STATE 8086),
    (sym_tuple_pattern, STATE 8101), (sym_list_pattern, STATE 8101),
    (sym_list_splat_pattern, STATE 6819), (sym_as_pattern, STATE 7969),
    (sym_expression, STATE 9883), (sym_primary_expression, STATE 7326),
    (sym_comptime_expression, STATE 7017), (sym_transfer_expression, STATE 7017),
    (sym_not_operator, STATE 7969), (sym_boolean_operator, STATE 7969),
    (sym_binary_operator, STATE 7017), (sym_unary_operator, STATE 7017),
    (sym_comparison_operator, STATE 7969), (sym_lambda, STATE 7969),
    (sym_assignment, STATE 12425), (sym_augmented_assignment, STATE 12425),
    (sym_pattern_list, STATE 8578), (sym_yield, STATE 12425), (sym_attribute, STATE 6836),
    (sym_subscript, STATE 6838), (sym_call, STATE 6845), (sym_mlir_type, STATE 7017),
    (sym_list, STATE 7017), (sym_set, STATE 7017), (sym_tuple, STATE 7017),
    (sym_dictionary, STATE 7017), (sym_struct_literal, STATE 7017),
    (sym_list_comprehension, STATE 7017), (sym_dictionary_comprehension, STATE 7017),
    (sym_set_comprehension, STATE 7017), (sym_generator_expression, STATE 7017),
    (sym_parenthesized_expression, STATE 7017), (sym_conditional_expression, STATE 7969),
    (sym_concatenated_string, STATE 7017), (sym_string, STATE 6751), (sym_await, STATE 7017),
    (aux_sym_module_repeat1, STATE 925), (aux_sym_decorated_definition_repeat1, STATE 3670),
    (sym_identifier, ACTIONS 9), (anon_sym_import, ACTIONS 11), (anon_sym_from, ACTIONS 13),
    (anon_sym_LPAREN, ACTIONS 15), (anon_sym_STAR, ACTIONS 17), (anon_sym_print, ACTIONS 19),
    (anon_sym_comptime, ACTIONS 99), (anon_sym_assert, ACTIONS 23),
    (anon_sym___comptime_assert, ACTIONS 25), (anon_sym_return, ACTIONS 27),
    (anon_sym_del, ACTIONS 29), (anon_sym_raise, ACTIONS 31), (anon_sym_pass, ACTIONS 33),
    (anon_sym_break, ACTIONS 35), (anon_sym_continue, ACTIONS 37),
    (anon_sym___extension, ACTIONS 101), (anon_sym___mlir_region, ACTIONS 103),
    (anon_sym_if, ACTIONS 105), (anon_sym_match, ACTIONS 107), (anon_sym_async, ACTIONS 109),
    (anon_sym_for, ACTIONS 111), (anon_sym_while, ACTIONS 113), (anon_sym_try, ACTIONS 115),
    (anon_sym_with, ACTIONS 117), (anon_sym_def, ACTIONS 119), (anon_sym_fn, ACTIONS 119),
    (anon_sym_LBRACK, ACTIONS 59), (anon_sym_LBRACE, ACTIONS 61), (anon_sym_global, ACTIONS 63),
    (anon_sym_nonlocal, ACTIONS 65), (anon_sym_exec, ACTIONS 67), (anon_sym_type, ACTIONS 69),
    (anon_sym_class, ACTIONS 121), (anon_sym_struct, ACTIONS 121), (anon_sym_mut, ACTIONS 73),
    (anon_sym_out, ACTIONS 73), (anon_sym_trait, ACTIONS 123), (anon_sym_AT, ACTIONS 77),
    (anon_sym_DASH, ACTIONS 79), (anon_sym_PLUS, ACTIONS 79), (anon_sym_ref, ACTIONS 81),
    (anon_sym_var, ACTIONS 81), (anon_sym_not, ACTIONS 83), (anon_sym_TILDE, ACTIONS 79),
    (anon_sym_lambda, ACTIONS 85), (anon_sym_yield, ACTIONS 87), (sym_ellipsis, ACTIONS 89),
    (anon_sym___mlir_type, ACTIONS 91), (sym_integer, ACTIONS 93), (sym_float, ACTIONS 89),
    (anon_sym_await, ACTIONS 95), (sym_true, ACTIONS 93), (sym_false, ACTIONS 93),
    (sym_none, ACTIONS 93), (sym_comment, ACTIONS 3), (sym_line_continuation, ACTIONS 3),
    (sym__dedent, ACTIONS 129), (sym_string_start, ACTIONS 97)]"

definition parse_table_454 :: "(nat \<times> nat) list" where "parse_table_454 = [
    (sym__statement, STATE 925), (sym__simple_statements, STATE 925),
    (sym_import_statement, STATE 11814), (sym_future_import_statement, STATE 11814),
    (sym_import_from_statement, STATE 11814), (sym_print_statement, STATE 11814),
    (sym_assert_statement, STATE 11814), (sym_comptime_assert_statement, STATE 11814),
    (sym_expression_statement, STATE 11814), (sym_tuple_expression, STATE 12425),
    (sym_named_expression, STATE 7969), (sym__named_expression_lhs, STATE 12752),
    (sym_return_statement, STATE 11814), (sym_delete_statement, STATE 11814),
    (sym_raise_statement, STATE 11814), (sym_pass_statement, STATE 11814),
    (sym_break_statement, STATE 11814), (sym_continue_statement, STATE 11814),
    (sym_extension_definition, STATE 925), (sym_mlir_region, STATE 925),
    (sym_comptime_statement, STATE 925), (sym_if_statement, STATE 925),
    (sym_match_statement, STATE 925), (sym_for_statement, STATE 925),
    (sym_while_statement, STATE 925), (sym_try_statement, STATE 925),
    (sym_with_statement, STATE 925), (sym_function_definition, STATE 925),
    (sym_global_statement, STATE 11814), (sym_nonlocal_statement, STATE 11814),
    (sym_exec_statement, STATE 11814), (sym_type_alias_statement, STATE 11814),
    (sym_parameterized_alias_statement, STATE 11814), (sym_class_definition, STATE 925),
    (sym_trait_definition, STATE 925), (sym_decorated_definition, STATE 925),
    (sym_decorator, STATE 3670), (sym_block, STATE 4497), (sym_pattern, STATE 8086),
    (sym_tuple_pattern, STATE 8101), (sym_list_pattern, STATE 8101),
    (sym_list_splat_pattern, STATE 6819), (sym_as_pattern, STATE 7969),
    (sym_expression, STATE 9883), (sym_primary_expression, STATE 7326),
    (sym_comptime_expression, STATE 7017), (sym_transfer_expression, STATE 7017),
    (sym_not_operator, STATE 7969), (sym_boolean_operator, STATE 7969),
    (sym_binary_operator, STATE 7017), (sym_unary_operator, STATE 7017),
    (sym_comparison_operator, STATE 7969), (sym_lambda, STATE 7969),
    (sym_assignment, STATE 12425), (sym_augmented_assignment, STATE 12425),
    (sym_pattern_list, STATE 8578), (sym_yield, STATE 12425), (sym_attribute, STATE 6836),
    (sym_subscript, STATE 6838), (sym_call, STATE 6845), (sym_mlir_type, STATE 7017),
    (sym_list, STATE 7017), (sym_set, STATE 7017), (sym_tuple, STATE 7017),
    (sym_dictionary, STATE 7017), (sym_struct_literal, STATE 7017),
    (sym_list_comprehension, STATE 7017), (sym_dictionary_comprehension, STATE 7017),
    (sym_set_comprehension, STATE 7017), (sym_generator_expression, STATE 7017),
    (sym_parenthesized_expression, STATE 7017), (sym_conditional_expression, STATE 7969),
    (sym_concatenated_string, STATE 7017), (sym_string, STATE 6751), (sym_await, STATE 7017),
    (aux_sym_module_repeat1, STATE 925), (aux_sym_decorated_definition_repeat1, STATE 3670),
    (sym_identifier, ACTIONS 9), (anon_sym_import, ACTIONS 11), (anon_sym_from, ACTIONS 13),
    (anon_sym_LPAREN, ACTIONS 15), (anon_sym_STAR, ACTIONS 17), (anon_sym_print, ACTIONS 19),
    (anon_sym_comptime, ACTIONS 99), (anon_sym_assert, ACTIONS 23),
    (anon_sym___comptime_assert, ACTIONS 25), (anon_sym_return, ACTIONS 27),
    (anon_sym_del, ACTIONS 29), (anon_sym_raise, ACTIONS 31), (anon_sym_pass, ACTIONS 33),
    (anon_sym_break, ACTIONS 35), (anon_sym_continue, ACTIONS 37),
    (anon_sym___extension, ACTIONS 101), (anon_sym___mlir_region, ACTIONS 103),
    (anon_sym_if, ACTIONS 105), (anon_sym_match, ACTIONS 107), (anon_sym_async, ACTIONS 109),
    (anon_sym_for, ACTIONS 111), (anon_sym_while, ACTIONS 113), (anon_sym_try, ACTIONS 115),
    (anon_sym_with, ACTIONS 117), (anon_sym_def, ACTIONS 119), (anon_sym_fn, ACTIONS 119),
    (anon_sym_LBRACK, ACTIONS 59), (anon_sym_LBRACE, ACTIONS 61), (anon_sym_global, ACTIONS 63),
    (anon_sym_nonlocal, ACTIONS 65), (anon_sym_exec, ACTIONS 67), (anon_sym_type, ACTIONS 69),
    (anon_sym_class, ACTIONS 121), (anon_sym_struct, ACTIONS 121), (anon_sym_mut, ACTIONS 73),
    (anon_sym_out, ACTIONS 73), (anon_sym_trait, ACTIONS 123), (anon_sym_AT, ACTIONS 77),
    (anon_sym_DASH, ACTIONS 79), (anon_sym_PLUS, ACTIONS 79), (anon_sym_ref, ACTIONS 81),
    (anon_sym_var, ACTIONS 81), (anon_sym_not, ACTIONS 83), (anon_sym_TILDE, ACTIONS 79),
    (anon_sym_lambda, ACTIONS 85), (anon_sym_yield, ACTIONS 87), (sym_ellipsis, ACTIONS 89),
    (anon_sym___mlir_type, ACTIONS 91), (sym_integer, ACTIONS 93), (sym_float, ACTIONS 89),
    (anon_sym_await, ACTIONS 95), (sym_true, ACTIONS 93), (sym_false, ACTIONS 93),
    (sym_none, ACTIONS 93), (sym_comment, ACTIONS 3), (sym_line_continuation, ACTIONS 3),
    (sym__dedent, ACTIONS 129), (sym_string_start, ACTIONS 97)]"

definition parse_table_455 :: "(nat \<times> nat) list" where "parse_table_455 = [
    (sym__statement, STATE 925), (sym__simple_statements, STATE 925),
    (sym_import_statement, STATE 11814), (sym_future_import_statement, STATE 11814),
    (sym_import_from_statement, STATE 11814), (sym_print_statement, STATE 11814),
    (sym_assert_statement, STATE 11814), (sym_comptime_assert_statement, STATE 11814),
    (sym_expression_statement, STATE 11814), (sym_tuple_expression, STATE 12425),
    (sym_named_expression, STATE 7969), (sym__named_expression_lhs, STATE 12752),
    (sym_return_statement, STATE 11814), (sym_delete_statement, STATE 11814),
    (sym_raise_statement, STATE 11814), (sym_pass_statement, STATE 11814),
    (sym_break_statement, STATE 11814), (sym_continue_statement, STATE 11814),
    (sym_extension_definition, STATE 925), (sym_mlir_region, STATE 925),
    (sym_comptime_statement, STATE 925), (sym_if_statement, STATE 925),
    (sym_match_statement, STATE 925), (sym_for_statement, STATE 925),
    (sym_while_statement, STATE 925), (sym_try_statement, STATE 925),
    (sym_with_statement, STATE 925), (sym_function_definition, STATE 925),
    (sym_global_statement, STATE 11814), (sym_nonlocal_statement, STATE 11814),
    (sym_exec_statement, STATE 11814), (sym_type_alias_statement, STATE 11814),
    (sym_parameterized_alias_statement, STATE 11814), (sym_class_definition, STATE 925),
    (sym_trait_definition, STATE 925), (sym_decorated_definition, STATE 925),
    (sym_decorator, STATE 3670), (sym_block, STATE 4498), (sym_pattern, STATE 8086),
    (sym_tuple_pattern, STATE 8101), (sym_list_pattern, STATE 8101),
    (sym_list_splat_pattern, STATE 6819), (sym_as_pattern, STATE 7969),
    (sym_expression, STATE 9883), (sym_primary_expression, STATE 7326),
    (sym_comptime_expression, STATE 7017), (sym_transfer_expression, STATE 7017),
    (sym_not_operator, STATE 7969), (sym_boolean_operator, STATE 7969),
    (sym_binary_operator, STATE 7017), (sym_unary_operator, STATE 7017),
    (sym_comparison_operator, STATE 7969), (sym_lambda, STATE 7969),
    (sym_assignment, STATE 12425), (sym_augmented_assignment, STATE 12425),
    (sym_pattern_list, STATE 8578), (sym_yield, STATE 12425), (sym_attribute, STATE 6836),
    (sym_subscript, STATE 6838), (sym_call, STATE 6845), (sym_mlir_type, STATE 7017),
    (sym_list, STATE 7017), (sym_set, STATE 7017), (sym_tuple, STATE 7017),
    (sym_dictionary, STATE 7017), (sym_struct_literal, STATE 7017),
    (sym_list_comprehension, STATE 7017), (sym_dictionary_comprehension, STATE 7017),
    (sym_set_comprehension, STATE 7017), (sym_generator_expression, STATE 7017),
    (sym_parenthesized_expression, STATE 7017), (sym_conditional_expression, STATE 7969),
    (sym_concatenated_string, STATE 7017), (sym_string, STATE 6751), (sym_await, STATE 7017),
    (aux_sym_module_repeat1, STATE 925), (aux_sym_decorated_definition_repeat1, STATE 3670),
    (sym_identifier, ACTIONS 9), (anon_sym_import, ACTIONS 11), (anon_sym_from, ACTIONS 13),
    (anon_sym_LPAREN, ACTIONS 15), (anon_sym_STAR, ACTIONS 17), (anon_sym_print, ACTIONS 19),
    (anon_sym_comptime, ACTIONS 99), (anon_sym_assert, ACTIONS 23),
    (anon_sym___comptime_assert, ACTIONS 25), (anon_sym_return, ACTIONS 27),
    (anon_sym_del, ACTIONS 29), (anon_sym_raise, ACTIONS 31), (anon_sym_pass, ACTIONS 33),
    (anon_sym_break, ACTIONS 35), (anon_sym_continue, ACTIONS 37),
    (anon_sym___extension, ACTIONS 101), (anon_sym___mlir_region, ACTIONS 103),
    (anon_sym_if, ACTIONS 105), (anon_sym_match, ACTIONS 107), (anon_sym_async, ACTIONS 109),
    (anon_sym_for, ACTIONS 111), (anon_sym_while, ACTIONS 113), (anon_sym_try, ACTIONS 115),
    (anon_sym_with, ACTIONS 117), (anon_sym_def, ACTIONS 119), (anon_sym_fn, ACTIONS 119),
    (anon_sym_LBRACK, ACTIONS 59), (anon_sym_LBRACE, ACTIONS 61), (anon_sym_global, ACTIONS 63),
    (anon_sym_nonlocal, ACTIONS 65), (anon_sym_exec, ACTIONS 67), (anon_sym_type, ACTIONS 69),
    (anon_sym_class, ACTIONS 121), (anon_sym_struct, ACTIONS 121), (anon_sym_mut, ACTIONS 73),
    (anon_sym_out, ACTIONS 73), (anon_sym_trait, ACTIONS 123), (anon_sym_AT, ACTIONS 77),
    (anon_sym_DASH, ACTIONS 79), (anon_sym_PLUS, ACTIONS 79), (anon_sym_ref, ACTIONS 81),
    (anon_sym_var, ACTIONS 81), (anon_sym_not, ACTIONS 83), (anon_sym_TILDE, ACTIONS 79),
    (anon_sym_lambda, ACTIONS 85), (anon_sym_yield, ACTIONS 87), (sym_ellipsis, ACTIONS 89),
    (anon_sym___mlir_type, ACTIONS 91), (sym_integer, ACTIONS 93), (sym_float, ACTIONS 89),
    (anon_sym_await, ACTIONS 95), (sym_true, ACTIONS 93), (sym_false, ACTIONS 93),
    (sym_none, ACTIONS 93), (sym_comment, ACTIONS 3), (sym_line_continuation, ACTIONS 3),
    (sym__dedent, ACTIONS 129), (sym_string_start, ACTIONS 97)]"

definition parse_table_456 :: "(nat \<times> nat) list" where "parse_table_456 = [
    (sym__statement, STATE 925), (sym__simple_statements, STATE 925),
    (sym_import_statement, STATE 11814), (sym_future_import_statement, STATE 11814),
    (sym_import_from_statement, STATE 11814), (sym_print_statement, STATE 11814),
    (sym_assert_statement, STATE 11814), (sym_comptime_assert_statement, STATE 11814),
    (sym_expression_statement, STATE 11814), (sym_tuple_expression, STATE 12425),
    (sym_named_expression, STATE 7969), (sym__named_expression_lhs, STATE 12752),
    (sym_return_statement, STATE 11814), (sym_delete_statement, STATE 11814),
    (sym_raise_statement, STATE 11814), (sym_pass_statement, STATE 11814),
    (sym_break_statement, STATE 11814), (sym_continue_statement, STATE 11814),
    (sym_extension_definition, STATE 925), (sym_mlir_region, STATE 925),
    (sym_comptime_statement, STATE 925), (sym_if_statement, STATE 925),
    (sym_match_statement, STATE 925), (sym_for_statement, STATE 925),
    (sym_while_statement, STATE 925), (sym_try_statement, STATE 925),
    (sym_with_statement, STATE 925), (sym_function_definition, STATE 925),
    (sym_global_statement, STATE 11814), (sym_nonlocal_statement, STATE 11814),
    (sym_exec_statement, STATE 11814), (sym_type_alias_statement, STATE 11814),
    (sym_parameterized_alias_statement, STATE 11814), (sym_class_definition, STATE 925),
    (sym_trait_definition, STATE 925), (sym_decorated_definition, STATE 925),
    (sym_decorator, STATE 3670), (sym_block, STATE 4534), (sym_pattern, STATE 8086),
    (sym_tuple_pattern, STATE 8101), (sym_list_pattern, STATE 8101),
    (sym_list_splat_pattern, STATE 6819), (sym_as_pattern, STATE 7969),
    (sym_expression, STATE 9883), (sym_primary_expression, STATE 7326),
    (sym_comptime_expression, STATE 7017), (sym_transfer_expression, STATE 7017),
    (sym_not_operator, STATE 7969), (sym_boolean_operator, STATE 7969),
    (sym_binary_operator, STATE 7017), (sym_unary_operator, STATE 7017),
    (sym_comparison_operator, STATE 7969), (sym_lambda, STATE 7969),
    (sym_assignment, STATE 12425), (sym_augmented_assignment, STATE 12425),
    (sym_pattern_list, STATE 8578), (sym_yield, STATE 12425), (sym_attribute, STATE 6836),
    (sym_subscript, STATE 6838), (sym_call, STATE 6845), (sym_mlir_type, STATE 7017),
    (sym_list, STATE 7017), (sym_set, STATE 7017), (sym_tuple, STATE 7017),
    (sym_dictionary, STATE 7017), (sym_struct_literal, STATE 7017),
    (sym_list_comprehension, STATE 7017), (sym_dictionary_comprehension, STATE 7017),
    (sym_set_comprehension, STATE 7017), (sym_generator_expression, STATE 7017),
    (sym_parenthesized_expression, STATE 7017), (sym_conditional_expression, STATE 7969),
    (sym_concatenated_string, STATE 7017), (sym_string, STATE 6751), (sym_await, STATE 7017),
    (aux_sym_module_repeat1, STATE 925), (aux_sym_decorated_definition_repeat1, STATE 3670),
    (sym_identifier, ACTIONS 9), (anon_sym_import, ACTIONS 11), (anon_sym_from, ACTIONS 13),
    (anon_sym_LPAREN, ACTIONS 15), (anon_sym_STAR, ACTIONS 17), (anon_sym_print, ACTIONS 19),
    (anon_sym_comptime, ACTIONS 99), (anon_sym_assert, ACTIONS 23),
    (anon_sym___comptime_assert, ACTIONS 25), (anon_sym_return, ACTIONS 27),
    (anon_sym_del, ACTIONS 29), (anon_sym_raise, ACTIONS 31), (anon_sym_pass, ACTIONS 33),
    (anon_sym_break, ACTIONS 35), (anon_sym_continue, ACTIONS 37),
    (anon_sym___extension, ACTIONS 101), (anon_sym___mlir_region, ACTIONS 103),
    (anon_sym_if, ACTIONS 105), (anon_sym_match, ACTIONS 107), (anon_sym_async, ACTIONS 109),
    (anon_sym_for, ACTIONS 111), (anon_sym_while, ACTIONS 113), (anon_sym_try, ACTIONS 115),
    (anon_sym_with, ACTIONS 117), (anon_sym_def, ACTIONS 119), (anon_sym_fn, ACTIONS 119),
    (anon_sym_LBRACK, ACTIONS 59), (anon_sym_LBRACE, ACTIONS 61), (anon_sym_global, ACTIONS 63),
    (anon_sym_nonlocal, ACTIONS 65), (anon_sym_exec, ACTIONS 67), (anon_sym_type, ACTIONS 69),
    (anon_sym_class, ACTIONS 121), (anon_sym_struct, ACTIONS 121), (anon_sym_mut, ACTIONS 73),
    (anon_sym_out, ACTIONS 73), (anon_sym_trait, ACTIONS 123), (anon_sym_AT, ACTIONS 77),
    (anon_sym_DASH, ACTIONS 79), (anon_sym_PLUS, ACTIONS 79), (anon_sym_ref, ACTIONS 81),
    (anon_sym_var, ACTIONS 81), (anon_sym_not, ACTIONS 83), (anon_sym_TILDE, ACTIONS 79),
    (anon_sym_lambda, ACTIONS 85), (anon_sym_yield, ACTIONS 87), (sym_ellipsis, ACTIONS 89),
    (anon_sym___mlir_type, ACTIONS 91), (sym_integer, ACTIONS 93), (sym_float, ACTIONS 89),
    (anon_sym_await, ACTIONS 95), (sym_true, ACTIONS 93), (sym_false, ACTIONS 93),
    (sym_none, ACTIONS 93), (sym_comment, ACTIONS 3), (sym_line_continuation, ACTIONS 3),
    (sym__dedent, ACTIONS 129), (sym_string_start, ACTIONS 97)]"

definition parse_table_457 :: "(nat \<times> nat) list" where "parse_table_457 = [
    (sym__statement, STATE 925), (sym__simple_statements, STATE 925),
    (sym_import_statement, STATE 11814), (sym_future_import_statement, STATE 11814),
    (sym_import_from_statement, STATE 11814), (sym_print_statement, STATE 11814),
    (sym_assert_statement, STATE 11814), (sym_comptime_assert_statement, STATE 11814),
    (sym_expression_statement, STATE 11814), (sym_tuple_expression, STATE 12425),
    (sym_named_expression, STATE 7969), (sym__named_expression_lhs, STATE 12752),
    (sym_return_statement, STATE 11814), (sym_delete_statement, STATE 11814),
    (sym_raise_statement, STATE 11814), (sym_pass_statement, STATE 11814),
    (sym_break_statement, STATE 11814), (sym_continue_statement, STATE 11814),
    (sym_extension_definition, STATE 925), (sym_mlir_region, STATE 925),
    (sym_comptime_statement, STATE 925), (sym_if_statement, STATE 925),
    (sym_match_statement, STATE 925), (sym_for_statement, STATE 925),
    (sym_while_statement, STATE 925), (sym_try_statement, STATE 925),
    (sym_with_statement, STATE 925), (sym_function_definition, STATE 925),
    (sym_global_statement, STATE 11814), (sym_nonlocal_statement, STATE 11814),
    (sym_exec_statement, STATE 11814), (sym_type_alias_statement, STATE 11814),
    (sym_parameterized_alias_statement, STATE 11814), (sym_class_definition, STATE 925),
    (sym_trait_definition, STATE 925), (sym_decorated_definition, STATE 925),
    (sym_decorator, STATE 3670), (sym_block, STATE 4537), (sym_pattern, STATE 8086),
    (sym_tuple_pattern, STATE 8101), (sym_list_pattern, STATE 8101),
    (sym_list_splat_pattern, STATE 6819), (sym_as_pattern, STATE 7969),
    (sym_expression, STATE 9883), (sym_primary_expression, STATE 7326),
    (sym_comptime_expression, STATE 7017), (sym_transfer_expression, STATE 7017),
    (sym_not_operator, STATE 7969), (sym_boolean_operator, STATE 7969),
    (sym_binary_operator, STATE 7017), (sym_unary_operator, STATE 7017),
    (sym_comparison_operator, STATE 7969), (sym_lambda, STATE 7969),
    (sym_assignment, STATE 12425), (sym_augmented_assignment, STATE 12425),
    (sym_pattern_list, STATE 8578), (sym_yield, STATE 12425), (sym_attribute, STATE 6836),
    (sym_subscript, STATE 6838), (sym_call, STATE 6845), (sym_mlir_type, STATE 7017),
    (sym_list, STATE 7017), (sym_set, STATE 7017), (sym_tuple, STATE 7017),
    (sym_dictionary, STATE 7017), (sym_struct_literal, STATE 7017),
    (sym_list_comprehension, STATE 7017), (sym_dictionary_comprehension, STATE 7017),
    (sym_set_comprehension, STATE 7017), (sym_generator_expression, STATE 7017),
    (sym_parenthesized_expression, STATE 7017), (sym_conditional_expression, STATE 7969),
    (sym_concatenated_string, STATE 7017), (sym_string, STATE 6751), (sym_await, STATE 7017),
    (aux_sym_module_repeat1, STATE 925), (aux_sym_decorated_definition_repeat1, STATE 3670),
    (sym_identifier, ACTIONS 9), (anon_sym_import, ACTIONS 11), (anon_sym_from, ACTIONS 13),
    (anon_sym_LPAREN, ACTIONS 15), (anon_sym_STAR, ACTIONS 17), (anon_sym_print, ACTIONS 19),
    (anon_sym_comptime, ACTIONS 99), (anon_sym_assert, ACTIONS 23),
    (anon_sym___comptime_assert, ACTIONS 25), (anon_sym_return, ACTIONS 27),
    (anon_sym_del, ACTIONS 29), (anon_sym_raise, ACTIONS 31), (anon_sym_pass, ACTIONS 33),
    (anon_sym_break, ACTIONS 35), (anon_sym_continue, ACTIONS 37),
    (anon_sym___extension, ACTIONS 101), (anon_sym___mlir_region, ACTIONS 103),
    (anon_sym_if, ACTIONS 105), (anon_sym_match, ACTIONS 107), (anon_sym_async, ACTIONS 109),
    (anon_sym_for, ACTIONS 111), (anon_sym_while, ACTIONS 113), (anon_sym_try, ACTIONS 115),
    (anon_sym_with, ACTIONS 117), (anon_sym_def, ACTIONS 119), (anon_sym_fn, ACTIONS 119),
    (anon_sym_LBRACK, ACTIONS 59), (anon_sym_LBRACE, ACTIONS 61), (anon_sym_global, ACTIONS 63),
    (anon_sym_nonlocal, ACTIONS 65), (anon_sym_exec, ACTIONS 67), (anon_sym_type, ACTIONS 69),
    (anon_sym_class, ACTIONS 121), (anon_sym_struct, ACTIONS 121), (anon_sym_mut, ACTIONS 73),
    (anon_sym_out, ACTIONS 73), (anon_sym_trait, ACTIONS 123), (anon_sym_AT, ACTIONS 77),
    (anon_sym_DASH, ACTIONS 79), (anon_sym_PLUS, ACTIONS 79), (anon_sym_ref, ACTIONS 81),
    (anon_sym_var, ACTIONS 81), (anon_sym_not, ACTIONS 83), (anon_sym_TILDE, ACTIONS 79),
    (anon_sym_lambda, ACTIONS 85), (anon_sym_yield, ACTIONS 87), (sym_ellipsis, ACTIONS 89),
    (anon_sym___mlir_type, ACTIONS 91), (sym_integer, ACTIONS 93), (sym_float, ACTIONS 89),
    (anon_sym_await, ACTIONS 95), (sym_true, ACTIONS 93), (sym_false, ACTIONS 93),
    (sym_none, ACTIONS 93), (sym_comment, ACTIONS 3), (sym_line_continuation, ACTIONS 3),
    (sym__dedent, ACTIONS 129), (sym_string_start, ACTIONS 97)]"

definition parse_table_458 :: "(nat \<times> nat) list" where "parse_table_458 = [
    (sym__statement, STATE 925), (sym__simple_statements, STATE 925),
    (sym_import_statement, STATE 11814), (sym_future_import_statement, STATE 11814),
    (sym_import_from_statement, STATE 11814), (sym_print_statement, STATE 11814),
    (sym_assert_statement, STATE 11814), (sym_comptime_assert_statement, STATE 11814),
    (sym_expression_statement, STATE 11814), (sym_tuple_expression, STATE 12425),
    (sym_named_expression, STATE 7969), (sym__named_expression_lhs, STATE 12752),
    (sym_return_statement, STATE 11814), (sym_delete_statement, STATE 11814),
    (sym_raise_statement, STATE 11814), (sym_pass_statement, STATE 11814),
    (sym_break_statement, STATE 11814), (sym_continue_statement, STATE 11814),
    (sym_extension_definition, STATE 925), (sym_mlir_region, STATE 925),
    (sym_comptime_statement, STATE 925), (sym_if_statement, STATE 925),
    (sym_match_statement, STATE 925), (sym_for_statement, STATE 925),
    (sym_while_statement, STATE 925), (sym_try_statement, STATE 925),
    (sym_with_statement, STATE 925), (sym_function_definition, STATE 925),
    (sym_global_statement, STATE 11814), (sym_nonlocal_statement, STATE 11814),
    (sym_exec_statement, STATE 11814), (sym_type_alias_statement, STATE 11814),
    (sym_parameterized_alias_statement, STATE 11814), (sym_class_definition, STATE 925),
    (sym_trait_definition, STATE 925), (sym_decorated_definition, STATE 925),
    (sym_decorator, STATE 3670), (sym_block, STATE 4542), (sym_pattern, STATE 8086),
    (sym_tuple_pattern, STATE 8101), (sym_list_pattern, STATE 8101),
    (sym_list_splat_pattern, STATE 6819), (sym_as_pattern, STATE 7969),
    (sym_expression, STATE 9883), (sym_primary_expression, STATE 7326),
    (sym_comptime_expression, STATE 7017), (sym_transfer_expression, STATE 7017),
    (sym_not_operator, STATE 7969), (sym_boolean_operator, STATE 7969),
    (sym_binary_operator, STATE 7017), (sym_unary_operator, STATE 7017),
    (sym_comparison_operator, STATE 7969), (sym_lambda, STATE 7969),
    (sym_assignment, STATE 12425), (sym_augmented_assignment, STATE 12425),
    (sym_pattern_list, STATE 8578), (sym_yield, STATE 12425), (sym_attribute, STATE 6836),
    (sym_subscript, STATE 6838), (sym_call, STATE 6845), (sym_mlir_type, STATE 7017),
    (sym_list, STATE 7017), (sym_set, STATE 7017), (sym_tuple, STATE 7017),
    (sym_dictionary, STATE 7017), (sym_struct_literal, STATE 7017),
    (sym_list_comprehension, STATE 7017), (sym_dictionary_comprehension, STATE 7017),
    (sym_set_comprehension, STATE 7017), (sym_generator_expression, STATE 7017),
    (sym_parenthesized_expression, STATE 7017), (sym_conditional_expression, STATE 7969),
    (sym_concatenated_string, STATE 7017), (sym_string, STATE 6751), (sym_await, STATE 7017),
    (aux_sym_module_repeat1, STATE 925), (aux_sym_decorated_definition_repeat1, STATE 3670),
    (sym_identifier, ACTIONS 9), (anon_sym_import, ACTIONS 11), (anon_sym_from, ACTIONS 13),
    (anon_sym_LPAREN, ACTIONS 15), (anon_sym_STAR, ACTIONS 17), (anon_sym_print, ACTIONS 19),
    (anon_sym_comptime, ACTIONS 99), (anon_sym_assert, ACTIONS 23),
    (anon_sym___comptime_assert, ACTIONS 25), (anon_sym_return, ACTIONS 27),
    (anon_sym_del, ACTIONS 29), (anon_sym_raise, ACTIONS 31), (anon_sym_pass, ACTIONS 33),
    (anon_sym_break, ACTIONS 35), (anon_sym_continue, ACTIONS 37),
    (anon_sym___extension, ACTIONS 101), (anon_sym___mlir_region, ACTIONS 103),
    (anon_sym_if, ACTIONS 105), (anon_sym_match, ACTIONS 107), (anon_sym_async, ACTIONS 109),
    (anon_sym_for, ACTIONS 111), (anon_sym_while, ACTIONS 113), (anon_sym_try, ACTIONS 115),
    (anon_sym_with, ACTIONS 117), (anon_sym_def, ACTIONS 119), (anon_sym_fn, ACTIONS 119),
    (anon_sym_LBRACK, ACTIONS 59), (anon_sym_LBRACE, ACTIONS 61), (anon_sym_global, ACTIONS 63),
    (anon_sym_nonlocal, ACTIONS 65), (anon_sym_exec, ACTIONS 67), (anon_sym_type, ACTIONS 69),
    (anon_sym_class, ACTIONS 121), (anon_sym_struct, ACTIONS 121), (anon_sym_mut, ACTIONS 73),
    (anon_sym_out, ACTIONS 73), (anon_sym_trait, ACTIONS 123), (anon_sym_AT, ACTIONS 77),
    (anon_sym_DASH, ACTIONS 79), (anon_sym_PLUS, ACTIONS 79), (anon_sym_ref, ACTIONS 81),
    (anon_sym_var, ACTIONS 81), (anon_sym_not, ACTIONS 83), (anon_sym_TILDE, ACTIONS 79),
    (anon_sym_lambda, ACTIONS 85), (anon_sym_yield, ACTIONS 87), (sym_ellipsis, ACTIONS 89),
    (anon_sym___mlir_type, ACTIONS 91), (sym_integer, ACTIONS 93), (sym_float, ACTIONS 89),
    (anon_sym_await, ACTIONS 95), (sym_true, ACTIONS 93), (sym_false, ACTIONS 93),
    (sym_none, ACTIONS 93), (sym_comment, ACTIONS 3), (sym_line_continuation, ACTIONS 3),
    (sym__dedent, ACTIONS 129), (sym_string_start, ACTIONS 97)]"

definition parse_table_459 :: "(nat \<times> nat) list" where "parse_table_459 = [
    (sym__statement, STATE 925), (sym__simple_statements, STATE 925),
    (sym_import_statement, STATE 11814), (sym_future_import_statement, STATE 11814),
    (sym_import_from_statement, STATE 11814), (sym_print_statement, STATE 11814),
    (sym_assert_statement, STATE 11814), (sym_comptime_assert_statement, STATE 11814),
    (sym_expression_statement, STATE 11814), (sym_tuple_expression, STATE 12425),
    (sym_named_expression, STATE 7969), (sym__named_expression_lhs, STATE 12752),
    (sym_return_statement, STATE 11814), (sym_delete_statement, STATE 11814),
    (sym_raise_statement, STATE 11814), (sym_pass_statement, STATE 11814),
    (sym_break_statement, STATE 11814), (sym_continue_statement, STATE 11814),
    (sym_extension_definition, STATE 925), (sym_mlir_region, STATE 925),
    (sym_comptime_statement, STATE 925), (sym_if_statement, STATE 925),
    (sym_match_statement, STATE 925), (sym_for_statement, STATE 925),
    (sym_while_statement, STATE 925), (sym_try_statement, STATE 925),
    (sym_with_statement, STATE 925), (sym_function_definition, STATE 925),
    (sym_global_statement, STATE 11814), (sym_nonlocal_statement, STATE 11814),
    (sym_exec_statement, STATE 11814), (sym_type_alias_statement, STATE 11814),
    (sym_parameterized_alias_statement, STATE 11814), (sym_class_definition, STATE 925),
    (sym_trait_definition, STATE 925), (sym_decorated_definition, STATE 925),
    (sym_decorator, STATE 3670), (sym_block, STATE 4551), (sym_pattern, STATE 8086),
    (sym_tuple_pattern, STATE 8101), (sym_list_pattern, STATE 8101),
    (sym_list_splat_pattern, STATE 6819), (sym_as_pattern, STATE 7969),
    (sym_expression, STATE 9883), (sym_primary_expression, STATE 7326),
    (sym_comptime_expression, STATE 7017), (sym_transfer_expression, STATE 7017),
    (sym_not_operator, STATE 7969), (sym_boolean_operator, STATE 7969),
    (sym_binary_operator, STATE 7017), (sym_unary_operator, STATE 7017),
    (sym_comparison_operator, STATE 7969), (sym_lambda, STATE 7969),
    (sym_assignment, STATE 12425), (sym_augmented_assignment, STATE 12425),
    (sym_pattern_list, STATE 8578), (sym_yield, STATE 12425), (sym_attribute, STATE 6836),
    (sym_subscript, STATE 6838), (sym_call, STATE 6845), (sym_mlir_type, STATE 7017),
    (sym_list, STATE 7017), (sym_set, STATE 7017), (sym_tuple, STATE 7017),
    (sym_dictionary, STATE 7017), (sym_struct_literal, STATE 7017),
    (sym_list_comprehension, STATE 7017), (sym_dictionary_comprehension, STATE 7017),
    (sym_set_comprehension, STATE 7017), (sym_generator_expression, STATE 7017),
    (sym_parenthesized_expression, STATE 7017), (sym_conditional_expression, STATE 7969),
    (sym_concatenated_string, STATE 7017), (sym_string, STATE 6751), (sym_await, STATE 7017),
    (aux_sym_module_repeat1, STATE 925), (aux_sym_decorated_definition_repeat1, STATE 3670),
    (sym_identifier, ACTIONS 9), (anon_sym_import, ACTIONS 11), (anon_sym_from, ACTIONS 13),
    (anon_sym_LPAREN, ACTIONS 15), (anon_sym_STAR, ACTIONS 17), (anon_sym_print, ACTIONS 19),
    (anon_sym_comptime, ACTIONS 99), (anon_sym_assert, ACTIONS 23),
    (anon_sym___comptime_assert, ACTIONS 25), (anon_sym_return, ACTIONS 27),
    (anon_sym_del, ACTIONS 29), (anon_sym_raise, ACTIONS 31), (anon_sym_pass, ACTIONS 33),
    (anon_sym_break, ACTIONS 35), (anon_sym_continue, ACTIONS 37),
    (anon_sym___extension, ACTIONS 101), (anon_sym___mlir_region, ACTIONS 103),
    (anon_sym_if, ACTIONS 105), (anon_sym_match, ACTIONS 107), (anon_sym_async, ACTIONS 109),
    (anon_sym_for, ACTIONS 111), (anon_sym_while, ACTIONS 113), (anon_sym_try, ACTIONS 115),
    (anon_sym_with, ACTIONS 117), (anon_sym_def, ACTIONS 119), (anon_sym_fn, ACTIONS 119),
    (anon_sym_LBRACK, ACTIONS 59), (anon_sym_LBRACE, ACTIONS 61), (anon_sym_global, ACTIONS 63),
    (anon_sym_nonlocal, ACTIONS 65), (anon_sym_exec, ACTIONS 67), (anon_sym_type, ACTIONS 69),
    (anon_sym_class, ACTIONS 121), (anon_sym_struct, ACTIONS 121), (anon_sym_mut, ACTIONS 73),
    (anon_sym_out, ACTIONS 73), (anon_sym_trait, ACTIONS 123), (anon_sym_AT, ACTIONS 77),
    (anon_sym_DASH, ACTIONS 79), (anon_sym_PLUS, ACTIONS 79), (anon_sym_ref, ACTIONS 81),
    (anon_sym_var, ACTIONS 81), (anon_sym_not, ACTIONS 83), (anon_sym_TILDE, ACTIONS 79),
    (anon_sym_lambda, ACTIONS 85), (anon_sym_yield, ACTIONS 87), (sym_ellipsis, ACTIONS 89),
    (anon_sym___mlir_type, ACTIONS 91), (sym_integer, ACTIONS 93), (sym_float, ACTIONS 89),
    (anon_sym_await, ACTIONS 95), (sym_true, ACTIONS 93), (sym_false, ACTIONS 93),
    (sym_none, ACTIONS 93), (sym_comment, ACTIONS 3), (sym_line_continuation, ACTIONS 3),
    (sym__dedent, ACTIONS 129), (sym_string_start, ACTIONS 97)]"

definition parse_table_460 :: "(nat \<times> nat) list" where "parse_table_460 = [
    (sym__statement, STATE 925), (sym__simple_statements, STATE 925),
    (sym_import_statement, STATE 11814), (sym_future_import_statement, STATE 11814),
    (sym_import_from_statement, STATE 11814), (sym_print_statement, STATE 11814),
    (sym_assert_statement, STATE 11814), (sym_comptime_assert_statement, STATE 11814),
    (sym_expression_statement, STATE 11814), (sym_tuple_expression, STATE 12425),
    (sym_named_expression, STATE 7969), (sym__named_expression_lhs, STATE 12752),
    (sym_return_statement, STATE 11814), (sym_delete_statement, STATE 11814),
    (sym_raise_statement, STATE 11814), (sym_pass_statement, STATE 11814),
    (sym_break_statement, STATE 11814), (sym_continue_statement, STATE 11814),
    (sym_extension_definition, STATE 925), (sym_mlir_region, STATE 925),
    (sym_comptime_statement, STATE 925), (sym_if_statement, STATE 925),
    (sym_match_statement, STATE 925), (sym_for_statement, STATE 925),
    (sym_while_statement, STATE 925), (sym_try_statement, STATE 925),
    (sym_with_statement, STATE 925), (sym_function_definition, STATE 925),
    (sym_global_statement, STATE 11814), (sym_nonlocal_statement, STATE 11814),
    (sym_exec_statement, STATE 11814), (sym_type_alias_statement, STATE 11814),
    (sym_parameterized_alias_statement, STATE 11814), (sym_class_definition, STATE 925),
    (sym_trait_definition, STATE 925), (sym_decorated_definition, STATE 925),
    (sym_decorator, STATE 3670), (sym_block, STATE 4553), (sym_pattern, STATE 8086),
    (sym_tuple_pattern, STATE 8101), (sym_list_pattern, STATE 8101),
    (sym_list_splat_pattern, STATE 6819), (sym_as_pattern, STATE 7969),
    (sym_expression, STATE 9883), (sym_primary_expression, STATE 7326),
    (sym_comptime_expression, STATE 7017), (sym_transfer_expression, STATE 7017),
    (sym_not_operator, STATE 7969), (sym_boolean_operator, STATE 7969),
    (sym_binary_operator, STATE 7017), (sym_unary_operator, STATE 7017),
    (sym_comparison_operator, STATE 7969), (sym_lambda, STATE 7969),
    (sym_assignment, STATE 12425), (sym_augmented_assignment, STATE 12425),
    (sym_pattern_list, STATE 8578), (sym_yield, STATE 12425), (sym_attribute, STATE 6836),
    (sym_subscript, STATE 6838), (sym_call, STATE 6845), (sym_mlir_type, STATE 7017),
    (sym_list, STATE 7017), (sym_set, STATE 7017), (sym_tuple, STATE 7017),
    (sym_dictionary, STATE 7017), (sym_struct_literal, STATE 7017),
    (sym_list_comprehension, STATE 7017), (sym_dictionary_comprehension, STATE 7017),
    (sym_set_comprehension, STATE 7017), (sym_generator_expression, STATE 7017),
    (sym_parenthesized_expression, STATE 7017), (sym_conditional_expression, STATE 7969),
    (sym_concatenated_string, STATE 7017), (sym_string, STATE 6751), (sym_await, STATE 7017),
    (aux_sym_module_repeat1, STATE 925), (aux_sym_decorated_definition_repeat1, STATE 3670),
    (sym_identifier, ACTIONS 9), (anon_sym_import, ACTIONS 11), (anon_sym_from, ACTIONS 13),
    (anon_sym_LPAREN, ACTIONS 15), (anon_sym_STAR, ACTIONS 17), (anon_sym_print, ACTIONS 19),
    (anon_sym_comptime, ACTIONS 99), (anon_sym_assert, ACTIONS 23),
    (anon_sym___comptime_assert, ACTIONS 25), (anon_sym_return, ACTIONS 27),
    (anon_sym_del, ACTIONS 29), (anon_sym_raise, ACTIONS 31), (anon_sym_pass, ACTIONS 33),
    (anon_sym_break, ACTIONS 35), (anon_sym_continue, ACTIONS 37),
    (anon_sym___extension, ACTIONS 101), (anon_sym___mlir_region, ACTIONS 103),
    (anon_sym_if, ACTIONS 105), (anon_sym_match, ACTIONS 107), (anon_sym_async, ACTIONS 109),
    (anon_sym_for, ACTIONS 111), (anon_sym_while, ACTIONS 113), (anon_sym_try, ACTIONS 115),
    (anon_sym_with, ACTIONS 117), (anon_sym_def, ACTIONS 119), (anon_sym_fn, ACTIONS 119),
    (anon_sym_LBRACK, ACTIONS 59), (anon_sym_LBRACE, ACTIONS 61), (anon_sym_global, ACTIONS 63),
    (anon_sym_nonlocal, ACTIONS 65), (anon_sym_exec, ACTIONS 67), (anon_sym_type, ACTIONS 69),
    (anon_sym_class, ACTIONS 121), (anon_sym_struct, ACTIONS 121), (anon_sym_mut, ACTIONS 73),
    (anon_sym_out, ACTIONS 73), (anon_sym_trait, ACTIONS 123), (anon_sym_AT, ACTIONS 77),
    (anon_sym_DASH, ACTIONS 79), (anon_sym_PLUS, ACTIONS 79), (anon_sym_ref, ACTIONS 81),
    (anon_sym_var, ACTIONS 81), (anon_sym_not, ACTIONS 83), (anon_sym_TILDE, ACTIONS 79),
    (anon_sym_lambda, ACTIONS 85), (anon_sym_yield, ACTIONS 87), (sym_ellipsis, ACTIONS 89),
    (anon_sym___mlir_type, ACTIONS 91), (sym_integer, ACTIONS 93), (sym_float, ACTIONS 89),
    (anon_sym_await, ACTIONS 95), (sym_true, ACTIONS 93), (sym_false, ACTIONS 93),
    (sym_none, ACTIONS 93), (sym_comment, ACTIONS 3), (sym_line_continuation, ACTIONS 3),
    (sym__dedent, ACTIONS 129), (sym_string_start, ACTIONS 97)]"

definition parse_table_461 :: "(nat \<times> nat) list" where "parse_table_461 = [
    (sym__statement, STATE 925), (sym__simple_statements, STATE 925),
    (sym_import_statement, STATE 11814), (sym_future_import_statement, STATE 11814),
    (sym_import_from_statement, STATE 11814), (sym_print_statement, STATE 11814),
    (sym_assert_statement, STATE 11814), (sym_comptime_assert_statement, STATE 11814),
    (sym_expression_statement, STATE 11814), (sym_tuple_expression, STATE 12425),
    (sym_named_expression, STATE 7969), (sym__named_expression_lhs, STATE 12752),
    (sym_return_statement, STATE 11814), (sym_delete_statement, STATE 11814),
    (sym_raise_statement, STATE 11814), (sym_pass_statement, STATE 11814),
    (sym_break_statement, STATE 11814), (sym_continue_statement, STATE 11814),
    (sym_extension_definition, STATE 925), (sym_mlir_region, STATE 925),
    (sym_comptime_statement, STATE 925), (sym_if_statement, STATE 925),
    (sym_match_statement, STATE 925), (sym_for_statement, STATE 925),
    (sym_while_statement, STATE 925), (sym_try_statement, STATE 925),
    (sym_with_statement, STATE 925), (sym_function_definition, STATE 925),
    (sym_global_statement, STATE 11814), (sym_nonlocal_statement, STATE 11814),
    (sym_exec_statement, STATE 11814), (sym_type_alias_statement, STATE 11814),
    (sym_parameterized_alias_statement, STATE 11814), (sym_class_definition, STATE 925),
    (sym_trait_definition, STATE 925), (sym_decorated_definition, STATE 925),
    (sym_decorator, STATE 3670), (sym_block, STATE 4564), (sym_pattern, STATE 8086),
    (sym_tuple_pattern, STATE 8101), (sym_list_pattern, STATE 8101),
    (sym_list_splat_pattern, STATE 6819), (sym_as_pattern, STATE 7969),
    (sym_expression, STATE 9883), (sym_primary_expression, STATE 7326),
    (sym_comptime_expression, STATE 7017), (sym_transfer_expression, STATE 7017),
    (sym_not_operator, STATE 7969), (sym_boolean_operator, STATE 7969),
    (sym_binary_operator, STATE 7017), (sym_unary_operator, STATE 7017),
    (sym_comparison_operator, STATE 7969), (sym_lambda, STATE 7969),
    (sym_assignment, STATE 12425), (sym_augmented_assignment, STATE 12425),
    (sym_pattern_list, STATE 8578), (sym_yield, STATE 12425), (sym_attribute, STATE 6836),
    (sym_subscript, STATE 6838), (sym_call, STATE 6845), (sym_mlir_type, STATE 7017),
    (sym_list, STATE 7017), (sym_set, STATE 7017), (sym_tuple, STATE 7017),
    (sym_dictionary, STATE 7017), (sym_struct_literal, STATE 7017),
    (sym_list_comprehension, STATE 7017), (sym_dictionary_comprehension, STATE 7017),
    (sym_set_comprehension, STATE 7017), (sym_generator_expression, STATE 7017),
    (sym_parenthesized_expression, STATE 7017), (sym_conditional_expression, STATE 7969),
    (sym_concatenated_string, STATE 7017), (sym_string, STATE 6751), (sym_await, STATE 7017),
    (aux_sym_module_repeat1, STATE 925), (aux_sym_decorated_definition_repeat1, STATE 3670),
    (sym_identifier, ACTIONS 9), (anon_sym_import, ACTIONS 11), (anon_sym_from, ACTIONS 13),
    (anon_sym_LPAREN, ACTIONS 15), (anon_sym_STAR, ACTIONS 17), (anon_sym_print, ACTIONS 19),
    (anon_sym_comptime, ACTIONS 99), (anon_sym_assert, ACTIONS 23),
    (anon_sym___comptime_assert, ACTIONS 25), (anon_sym_return, ACTIONS 27),
    (anon_sym_del, ACTIONS 29), (anon_sym_raise, ACTIONS 31), (anon_sym_pass, ACTIONS 33),
    (anon_sym_break, ACTIONS 35), (anon_sym_continue, ACTIONS 37),
    (anon_sym___extension, ACTIONS 101), (anon_sym___mlir_region, ACTIONS 103),
    (anon_sym_if, ACTIONS 105), (anon_sym_match, ACTIONS 107), (anon_sym_async, ACTIONS 109),
    (anon_sym_for, ACTIONS 111), (anon_sym_while, ACTIONS 113), (anon_sym_try, ACTIONS 115),
    (anon_sym_with, ACTIONS 117), (anon_sym_def, ACTIONS 119), (anon_sym_fn, ACTIONS 119),
    (anon_sym_LBRACK, ACTIONS 59), (anon_sym_LBRACE, ACTIONS 61), (anon_sym_global, ACTIONS 63),
    (anon_sym_nonlocal, ACTIONS 65), (anon_sym_exec, ACTIONS 67), (anon_sym_type, ACTIONS 69),
    (anon_sym_class, ACTIONS 121), (anon_sym_struct, ACTIONS 121), (anon_sym_mut, ACTIONS 73),
    (anon_sym_out, ACTIONS 73), (anon_sym_trait, ACTIONS 123), (anon_sym_AT, ACTIONS 77),
    (anon_sym_DASH, ACTIONS 79), (anon_sym_PLUS, ACTIONS 79), (anon_sym_ref, ACTIONS 81),
    (anon_sym_var, ACTIONS 81), (anon_sym_not, ACTIONS 83), (anon_sym_TILDE, ACTIONS 79),
    (anon_sym_lambda, ACTIONS 85), (anon_sym_yield, ACTIONS 87), (sym_ellipsis, ACTIONS 89),
    (anon_sym___mlir_type, ACTIONS 91), (sym_integer, ACTIONS 93), (sym_float, ACTIONS 89),
    (anon_sym_await, ACTIONS 95), (sym_true, ACTIONS 93), (sym_false, ACTIONS 93),
    (sym_none, ACTIONS 93), (sym_comment, ACTIONS 3), (sym_line_continuation, ACTIONS 3),
    (sym__dedent, ACTIONS 129), (sym_string_start, ACTIONS 97)]"

definition parse_table_462 :: "(nat \<times> nat) list" where "parse_table_462 = [
    (sym__statement, STATE 925), (sym__simple_statements, STATE 925),
    (sym_import_statement, STATE 11814), (sym_future_import_statement, STATE 11814),
    (sym_import_from_statement, STATE 11814), (sym_print_statement, STATE 11814),
    (sym_assert_statement, STATE 11814), (sym_comptime_assert_statement, STATE 11814),
    (sym_expression_statement, STATE 11814), (sym_tuple_expression, STATE 12425),
    (sym_named_expression, STATE 7969), (sym__named_expression_lhs, STATE 12752),
    (sym_return_statement, STATE 11814), (sym_delete_statement, STATE 11814),
    (sym_raise_statement, STATE 11814), (sym_pass_statement, STATE 11814),
    (sym_break_statement, STATE 11814), (sym_continue_statement, STATE 11814),
    (sym_extension_definition, STATE 925), (sym_mlir_region, STATE 925),
    (sym_comptime_statement, STATE 925), (sym_if_statement, STATE 925),
    (sym_match_statement, STATE 925), (sym_for_statement, STATE 925),
    (sym_while_statement, STATE 925), (sym_try_statement, STATE 925),
    (sym_with_statement, STATE 925), (sym_function_definition, STATE 925),
    (sym_global_statement, STATE 11814), (sym_nonlocal_statement, STATE 11814),
    (sym_exec_statement, STATE 11814), (sym_type_alias_statement, STATE 11814),
    (sym_parameterized_alias_statement, STATE 11814), (sym_class_definition, STATE 925),
    (sym_trait_definition, STATE 925), (sym_decorated_definition, STATE 925),
    (sym_decorator, STATE 3670), (sym_block, STATE 4565), (sym_pattern, STATE 8086),
    (sym_tuple_pattern, STATE 8101), (sym_list_pattern, STATE 8101),
    (sym_list_splat_pattern, STATE 6819), (sym_as_pattern, STATE 7969),
    (sym_expression, STATE 9883), (sym_primary_expression, STATE 7326),
    (sym_comptime_expression, STATE 7017), (sym_transfer_expression, STATE 7017),
    (sym_not_operator, STATE 7969), (sym_boolean_operator, STATE 7969),
    (sym_binary_operator, STATE 7017), (sym_unary_operator, STATE 7017),
    (sym_comparison_operator, STATE 7969), (sym_lambda, STATE 7969),
    (sym_assignment, STATE 12425), (sym_augmented_assignment, STATE 12425),
    (sym_pattern_list, STATE 8578), (sym_yield, STATE 12425), (sym_attribute, STATE 6836),
    (sym_subscript, STATE 6838), (sym_call, STATE 6845), (sym_mlir_type, STATE 7017),
    (sym_list, STATE 7017), (sym_set, STATE 7017), (sym_tuple, STATE 7017),
    (sym_dictionary, STATE 7017), (sym_struct_literal, STATE 7017),
    (sym_list_comprehension, STATE 7017), (sym_dictionary_comprehension, STATE 7017),
    (sym_set_comprehension, STATE 7017), (sym_generator_expression, STATE 7017),
    (sym_parenthesized_expression, STATE 7017), (sym_conditional_expression, STATE 7969),
    (sym_concatenated_string, STATE 7017), (sym_string, STATE 6751), (sym_await, STATE 7017),
    (aux_sym_module_repeat1, STATE 925), (aux_sym_decorated_definition_repeat1, STATE 3670),
    (sym_identifier, ACTIONS 9), (anon_sym_import, ACTIONS 11), (anon_sym_from, ACTIONS 13),
    (anon_sym_LPAREN, ACTIONS 15), (anon_sym_STAR, ACTIONS 17), (anon_sym_print, ACTIONS 19),
    (anon_sym_comptime, ACTIONS 99), (anon_sym_assert, ACTIONS 23),
    (anon_sym___comptime_assert, ACTIONS 25), (anon_sym_return, ACTIONS 27),
    (anon_sym_del, ACTIONS 29), (anon_sym_raise, ACTIONS 31), (anon_sym_pass, ACTIONS 33),
    (anon_sym_break, ACTIONS 35), (anon_sym_continue, ACTIONS 37),
    (anon_sym___extension, ACTIONS 101), (anon_sym___mlir_region, ACTIONS 103),
    (anon_sym_if, ACTIONS 105), (anon_sym_match, ACTIONS 107), (anon_sym_async, ACTIONS 109),
    (anon_sym_for, ACTIONS 111), (anon_sym_while, ACTIONS 113), (anon_sym_try, ACTIONS 115),
    (anon_sym_with, ACTIONS 117), (anon_sym_def, ACTIONS 119), (anon_sym_fn, ACTIONS 119),
    (anon_sym_LBRACK, ACTIONS 59), (anon_sym_LBRACE, ACTIONS 61), (anon_sym_global, ACTIONS 63),
    (anon_sym_nonlocal, ACTIONS 65), (anon_sym_exec, ACTIONS 67), (anon_sym_type, ACTIONS 69),
    (anon_sym_class, ACTIONS 121), (anon_sym_struct, ACTIONS 121), (anon_sym_mut, ACTIONS 73),
    (anon_sym_out, ACTIONS 73), (anon_sym_trait, ACTIONS 123), (anon_sym_AT, ACTIONS 77),
    (anon_sym_DASH, ACTIONS 79), (anon_sym_PLUS, ACTIONS 79), (anon_sym_ref, ACTIONS 81),
    (anon_sym_var, ACTIONS 81), (anon_sym_not, ACTIONS 83), (anon_sym_TILDE, ACTIONS 79),
    (anon_sym_lambda, ACTIONS 85), (anon_sym_yield, ACTIONS 87), (sym_ellipsis, ACTIONS 89),
    (anon_sym___mlir_type, ACTIONS 91), (sym_integer, ACTIONS 93), (sym_float, ACTIONS 89),
    (anon_sym_await, ACTIONS 95), (sym_true, ACTIONS 93), (sym_false, ACTIONS 93),
    (sym_none, ACTIONS 93), (sym_comment, ACTIONS 3), (sym_line_continuation, ACTIONS 3),
    (sym__dedent, ACTIONS 129), (sym_string_start, ACTIONS 97)]"

definition parse_table_463 :: "(nat \<times> nat) list" where "parse_table_463 = [
    (sym__statement, STATE 925), (sym__simple_statements, STATE 925),
    (sym_import_statement, STATE 11814), (sym_future_import_statement, STATE 11814),
    (sym_import_from_statement, STATE 11814), (sym_print_statement, STATE 11814),
    (sym_assert_statement, STATE 11814), (sym_comptime_assert_statement, STATE 11814),
    (sym_expression_statement, STATE 11814), (sym_tuple_expression, STATE 12425),
    (sym_named_expression, STATE 7969), (sym__named_expression_lhs, STATE 12752),
    (sym_return_statement, STATE 11814), (sym_delete_statement, STATE 11814),
    (sym_raise_statement, STATE 11814), (sym_pass_statement, STATE 11814),
    (sym_break_statement, STATE 11814), (sym_continue_statement, STATE 11814),
    (sym_extension_definition, STATE 925), (sym_mlir_region, STATE 925),
    (sym_comptime_statement, STATE 925), (sym_if_statement, STATE 925),
    (sym_match_statement, STATE 925), (sym_for_statement, STATE 925),
    (sym_while_statement, STATE 925), (sym_try_statement, STATE 925),
    (sym_with_statement, STATE 925), (sym_function_definition, STATE 925),
    (sym_global_statement, STATE 11814), (sym_nonlocal_statement, STATE 11814),
    (sym_exec_statement, STATE 11814), (sym_type_alias_statement, STATE 11814),
    (sym_parameterized_alias_statement, STATE 11814), (sym_class_definition, STATE 925),
    (sym_trait_definition, STATE 925), (sym_decorated_definition, STATE 925),
    (sym_decorator, STATE 3670), (sym_block, STATE 4581), (sym_pattern, STATE 8086),
    (sym_tuple_pattern, STATE 8101), (sym_list_pattern, STATE 8101),
    (sym_list_splat_pattern, STATE 6819), (sym_as_pattern, STATE 7969),
    (sym_expression, STATE 9883), (sym_primary_expression, STATE 7326),
    (sym_comptime_expression, STATE 7017), (sym_transfer_expression, STATE 7017),
    (sym_not_operator, STATE 7969), (sym_boolean_operator, STATE 7969),
    (sym_binary_operator, STATE 7017), (sym_unary_operator, STATE 7017),
    (sym_comparison_operator, STATE 7969), (sym_lambda, STATE 7969),
    (sym_assignment, STATE 12425), (sym_augmented_assignment, STATE 12425),
    (sym_pattern_list, STATE 8578), (sym_yield, STATE 12425), (sym_attribute, STATE 6836),
    (sym_subscript, STATE 6838), (sym_call, STATE 6845), (sym_mlir_type, STATE 7017),
    (sym_list, STATE 7017), (sym_set, STATE 7017), (sym_tuple, STATE 7017),
    (sym_dictionary, STATE 7017), (sym_struct_literal, STATE 7017),
    (sym_list_comprehension, STATE 7017), (sym_dictionary_comprehension, STATE 7017),
    (sym_set_comprehension, STATE 7017), (sym_generator_expression, STATE 7017),
    (sym_parenthesized_expression, STATE 7017), (sym_conditional_expression, STATE 7969),
    (sym_concatenated_string, STATE 7017), (sym_string, STATE 6751), (sym_await, STATE 7017),
    (aux_sym_module_repeat1, STATE 925), (aux_sym_decorated_definition_repeat1, STATE 3670),
    (sym_identifier, ACTIONS 9), (anon_sym_import, ACTIONS 11), (anon_sym_from, ACTIONS 13),
    (anon_sym_LPAREN, ACTIONS 15), (anon_sym_STAR, ACTIONS 17), (anon_sym_print, ACTIONS 19),
    (anon_sym_comptime, ACTIONS 99), (anon_sym_assert, ACTIONS 23),
    (anon_sym___comptime_assert, ACTIONS 25), (anon_sym_return, ACTIONS 27),
    (anon_sym_del, ACTIONS 29), (anon_sym_raise, ACTIONS 31), (anon_sym_pass, ACTIONS 33),
    (anon_sym_break, ACTIONS 35), (anon_sym_continue, ACTIONS 37),
    (anon_sym___extension, ACTIONS 101), (anon_sym___mlir_region, ACTIONS 103),
    (anon_sym_if, ACTIONS 105), (anon_sym_match, ACTIONS 107), (anon_sym_async, ACTIONS 109),
    (anon_sym_for, ACTIONS 111), (anon_sym_while, ACTIONS 113), (anon_sym_try, ACTIONS 115),
    (anon_sym_with, ACTIONS 117), (anon_sym_def, ACTIONS 119), (anon_sym_fn, ACTIONS 119),
    (anon_sym_LBRACK, ACTIONS 59), (anon_sym_LBRACE, ACTIONS 61), (anon_sym_global, ACTIONS 63),
    (anon_sym_nonlocal, ACTIONS 65), (anon_sym_exec, ACTIONS 67), (anon_sym_type, ACTIONS 69),
    (anon_sym_class, ACTIONS 121), (anon_sym_struct, ACTIONS 121), (anon_sym_mut, ACTIONS 73),
    (anon_sym_out, ACTIONS 73), (anon_sym_trait, ACTIONS 123), (anon_sym_AT, ACTIONS 77),
    (anon_sym_DASH, ACTIONS 79), (anon_sym_PLUS, ACTIONS 79), (anon_sym_ref, ACTIONS 81),
    (anon_sym_var, ACTIONS 81), (anon_sym_not, ACTIONS 83), (anon_sym_TILDE, ACTIONS 79),
    (anon_sym_lambda, ACTIONS 85), (anon_sym_yield, ACTIONS 87), (sym_ellipsis, ACTIONS 89),
    (anon_sym___mlir_type, ACTIONS 91), (sym_integer, ACTIONS 93), (sym_float, ACTIONS 89),
    (anon_sym_await, ACTIONS 95), (sym_true, ACTIONS 93), (sym_false, ACTIONS 93),
    (sym_none, ACTIONS 93), (sym_comment, ACTIONS 3), (sym_line_continuation, ACTIONS 3),
    (sym__dedent, ACTIONS 129), (sym_string_start, ACTIONS 97)]"

definition parse_table_464 :: "(nat \<times> nat) list" where "parse_table_464 = [
    (sym__statement, STATE 925), (sym__simple_statements, STATE 925),
    (sym_import_statement, STATE 11814), (sym_future_import_statement, STATE 11814),
    (sym_import_from_statement, STATE 11814), (sym_print_statement, STATE 11814),
    (sym_assert_statement, STATE 11814), (sym_comptime_assert_statement, STATE 11814),
    (sym_expression_statement, STATE 11814), (sym_tuple_expression, STATE 12425),
    (sym_named_expression, STATE 7969), (sym__named_expression_lhs, STATE 12752),
    (sym_return_statement, STATE 11814), (sym_delete_statement, STATE 11814),
    (sym_raise_statement, STATE 11814), (sym_pass_statement, STATE 11814),
    (sym_break_statement, STATE 11814), (sym_continue_statement, STATE 11814),
    (sym_extension_definition, STATE 925), (sym_mlir_region, STATE 925),
    (sym_comptime_statement, STATE 925), (sym_if_statement, STATE 925),
    (sym_match_statement, STATE 925), (sym_for_statement, STATE 925),
    (sym_while_statement, STATE 925), (sym_try_statement, STATE 925),
    (sym_with_statement, STATE 925), (sym_function_definition, STATE 925),
    (sym_global_statement, STATE 11814), (sym_nonlocal_statement, STATE 11814),
    (sym_exec_statement, STATE 11814), (sym_type_alias_statement, STATE 11814),
    (sym_parameterized_alias_statement, STATE 11814), (sym_class_definition, STATE 925),
    (sym_trait_definition, STATE 925), (sym_decorated_definition, STATE 925),
    (sym_decorator, STATE 3670), (sym_block, STATE 4606), (sym_pattern, STATE 8086),
    (sym_tuple_pattern, STATE 8101), (sym_list_pattern, STATE 8101),
    (sym_list_splat_pattern, STATE 6819), (sym_as_pattern, STATE 7969),
    (sym_expression, STATE 9883), (sym_primary_expression, STATE 7326),
    (sym_comptime_expression, STATE 7017), (sym_transfer_expression, STATE 7017),
    (sym_not_operator, STATE 7969), (sym_boolean_operator, STATE 7969),
    (sym_binary_operator, STATE 7017), (sym_unary_operator, STATE 7017),
    (sym_comparison_operator, STATE 7969), (sym_lambda, STATE 7969),
    (sym_assignment, STATE 12425), (sym_augmented_assignment, STATE 12425),
    (sym_pattern_list, STATE 8578), (sym_yield, STATE 12425), (sym_attribute, STATE 6836),
    (sym_subscript, STATE 6838), (sym_call, STATE 6845), (sym_mlir_type, STATE 7017),
    (sym_list, STATE 7017), (sym_set, STATE 7017), (sym_tuple, STATE 7017),
    (sym_dictionary, STATE 7017), (sym_struct_literal, STATE 7017),
    (sym_list_comprehension, STATE 7017), (sym_dictionary_comprehension, STATE 7017),
    (sym_set_comprehension, STATE 7017), (sym_generator_expression, STATE 7017),
    (sym_parenthesized_expression, STATE 7017), (sym_conditional_expression, STATE 7969),
    (sym_concatenated_string, STATE 7017), (sym_string, STATE 6751), (sym_await, STATE 7017),
    (aux_sym_module_repeat1, STATE 925), (aux_sym_decorated_definition_repeat1, STATE 3670),
    (sym_identifier, ACTIONS 9), (anon_sym_import, ACTIONS 11), (anon_sym_from, ACTIONS 13),
    (anon_sym_LPAREN, ACTIONS 15), (anon_sym_STAR, ACTIONS 17), (anon_sym_print, ACTIONS 19),
    (anon_sym_comptime, ACTIONS 99), (anon_sym_assert, ACTIONS 23),
    (anon_sym___comptime_assert, ACTIONS 25), (anon_sym_return, ACTIONS 27),
    (anon_sym_del, ACTIONS 29), (anon_sym_raise, ACTIONS 31), (anon_sym_pass, ACTIONS 33),
    (anon_sym_break, ACTIONS 35), (anon_sym_continue, ACTIONS 37),
    (anon_sym___extension, ACTIONS 101), (anon_sym___mlir_region, ACTIONS 103),
    (anon_sym_if, ACTIONS 105), (anon_sym_match, ACTIONS 107), (anon_sym_async, ACTIONS 109),
    (anon_sym_for, ACTIONS 111), (anon_sym_while, ACTIONS 113), (anon_sym_try, ACTIONS 115),
    (anon_sym_with, ACTIONS 117), (anon_sym_def, ACTIONS 119), (anon_sym_fn, ACTIONS 119),
    (anon_sym_LBRACK, ACTIONS 59), (anon_sym_LBRACE, ACTIONS 61), (anon_sym_global, ACTIONS 63),
    (anon_sym_nonlocal, ACTIONS 65), (anon_sym_exec, ACTIONS 67), (anon_sym_type, ACTIONS 69),
    (anon_sym_class, ACTIONS 121), (anon_sym_struct, ACTIONS 121), (anon_sym_mut, ACTIONS 73),
    (anon_sym_out, ACTIONS 73), (anon_sym_trait, ACTIONS 123), (anon_sym_AT, ACTIONS 77),
    (anon_sym_DASH, ACTIONS 79), (anon_sym_PLUS, ACTIONS 79), (anon_sym_ref, ACTIONS 81),
    (anon_sym_var, ACTIONS 81), (anon_sym_not, ACTIONS 83), (anon_sym_TILDE, ACTIONS 79),
    (anon_sym_lambda, ACTIONS 85), (anon_sym_yield, ACTIONS 87), (sym_ellipsis, ACTIONS 89),
    (anon_sym___mlir_type, ACTIONS 91), (sym_integer, ACTIONS 93), (sym_float, ACTIONS 89),
    (anon_sym_await, ACTIONS 95), (sym_true, ACTIONS 93), (sym_false, ACTIONS 93),
    (sym_none, ACTIONS 93), (sym_comment, ACTIONS 3), (sym_line_continuation, ACTIONS 3),
    (sym__dedent, ACTIONS 129), (sym_string_start, ACTIONS 97)]"

definition parse_table_465 :: "(nat \<times> nat) list" where "parse_table_465 = [
    (sym__statement, STATE 927), (sym__simple_statements, STATE 927),
    (sym_import_statement, STATE 11814), (sym_future_import_statement, STATE 11814),
    (sym_import_from_statement, STATE 11814), (sym_print_statement, STATE 11814),
    (sym_assert_statement, STATE 11814), (sym_comptime_assert_statement, STATE 11814),
    (sym_expression_statement, STATE 11814), (sym_tuple_expression, STATE 12425),
    (sym_named_expression, STATE 7969), (sym__named_expression_lhs, STATE 12752),
    (sym_return_statement, STATE 11814), (sym_delete_statement, STATE 11814),
    (sym_raise_statement, STATE 11814), (sym_pass_statement, STATE 11814),
    (sym_break_statement, STATE 11814), (sym_continue_statement, STATE 11814),
    (sym_extension_definition, STATE 927), (sym_mlir_region, STATE 927),
    (sym_comptime_statement, STATE 927), (sym_if_statement, STATE 927),
    (sym_match_statement, STATE 927), (sym_for_statement, STATE 927),
    (sym_while_statement, STATE 927), (sym_try_statement, STATE 927),
    (sym_with_statement, STATE 927), (sym_function_definition, STATE 927),
    (sym_global_statement, STATE 11814), (sym_nonlocal_statement, STATE 11814),
    (sym_exec_statement, STATE 11814), (sym_type_alias_statement, STATE 11814),
    (sym_parameterized_alias_statement, STATE 11814), (sym_class_definition, STATE 927),
    (sym_trait_definition, STATE 927), (sym_decorated_definition, STATE 927),
    (sym_decorator, STATE 3670), (sym_block, STATE 4469), (sym_pattern, STATE 8086),
    (sym_tuple_pattern, STATE 8101), (sym_list_pattern, STATE 8101),
    (sym_list_splat_pattern, STATE 6819), (sym_as_pattern, STATE 7969),
    (sym_expression, STATE 9883), (sym_primary_expression, STATE 7326),
    (sym_comptime_expression, STATE 7017), (sym_transfer_expression, STATE 7017),
    (sym_not_operator, STATE 7969), (sym_boolean_operator, STATE 7969),
    (sym_binary_operator, STATE 7017), (sym_unary_operator, STATE 7017),
    (sym_comparison_operator, STATE 7969), (sym_lambda, STATE 7969),
    (sym_assignment, STATE 12425), (sym_augmented_assignment, STATE 12425),
    (sym_pattern_list, STATE 8578), (sym_yield, STATE 12425), (sym_attribute, STATE 6836),
    (sym_subscript, STATE 6838), (sym_call, STATE 6845), (sym_mlir_type, STATE 7017),
    (sym_list, STATE 7017), (sym_set, STATE 7017), (sym_tuple, STATE 7017),
    (sym_dictionary, STATE 7017), (sym_struct_literal, STATE 7017),
    (sym_list_comprehension, STATE 7017), (sym_dictionary_comprehension, STATE 7017),
    (sym_set_comprehension, STATE 7017), (sym_generator_expression, STATE 7017),
    (sym_parenthesized_expression, STATE 7017), (sym_conditional_expression, STATE 7969),
    (sym_concatenated_string, STATE 7017), (sym_string, STATE 6751), (sym_await, STATE 7017),
    (aux_sym_module_repeat1, STATE 927), (aux_sym_decorated_definition_repeat1, STATE 3670),
    (sym_identifier, ACTIONS 9), (anon_sym_import, ACTIONS 11), (anon_sym_from, ACTIONS 13),
    (anon_sym_LPAREN, ACTIONS 15), (anon_sym_STAR, ACTIONS 17), (anon_sym_print, ACTIONS 19),
    (anon_sym_comptime, ACTIONS 99), (anon_sym_assert, ACTIONS 23),
    (anon_sym___comptime_assert, ACTIONS 25), (anon_sym_return, ACTIONS 27),
    (anon_sym_del, ACTIONS 29), (anon_sym_raise, ACTIONS 31), (anon_sym_pass, ACTIONS 33),
    (anon_sym_break, ACTIONS 35), (anon_sym_continue, ACTIONS 37),
    (anon_sym___extension, ACTIONS 101), (anon_sym___mlir_region, ACTIONS 103),
    (anon_sym_if, ACTIONS 105), (anon_sym_match, ACTIONS 107), (anon_sym_async, ACTIONS 109),
    (anon_sym_for, ACTIONS 111), (anon_sym_while, ACTIONS 113), (anon_sym_try, ACTIONS 115),
    (anon_sym_with, ACTIONS 117), (anon_sym_def, ACTIONS 119), (anon_sym_fn, ACTIONS 119),
    (anon_sym_LBRACK, ACTIONS 59), (anon_sym_LBRACE, ACTIONS 61), (anon_sym_global, ACTIONS 63),
    (anon_sym_nonlocal, ACTIONS 65), (anon_sym_exec, ACTIONS 67), (anon_sym_type, ACTIONS 69),
    (anon_sym_class, ACTIONS 121), (anon_sym_struct, ACTIONS 121), (anon_sym_mut, ACTIONS 73),
    (anon_sym_out, ACTIONS 73), (anon_sym_trait, ACTIONS 123), (anon_sym_AT, ACTIONS 77),
    (anon_sym_DASH, ACTIONS 79), (anon_sym_PLUS, ACTIONS 79), (anon_sym_ref, ACTIONS 81),
    (anon_sym_var, ACTIONS 81), (anon_sym_not, ACTIONS 83), (anon_sym_TILDE, ACTIONS 79),
    (anon_sym_lambda, ACTIONS 85), (anon_sym_yield, ACTIONS 87), (sym_ellipsis, ACTIONS 89),
    (anon_sym___mlir_type, ACTIONS 91), (sym_integer, ACTIONS 93), (sym_float, ACTIONS 89),
    (anon_sym_await, ACTIONS 95), (sym_true, ACTIONS 93), (sym_false, ACTIONS 93),
    (sym_none, ACTIONS 93), (sym_comment, ACTIONS 3), (sym_line_continuation, ACTIONS 3),
    (sym__dedent, ACTIONS 125), (sym_string_start, ACTIONS 97)]"

definition parse_table_466 :: "(nat \<times> nat) list" where "parse_table_466 = [
    (sym__statement, STATE 927), (sym__simple_statements, STATE 927),
    (sym_import_statement, STATE 11814), (sym_future_import_statement, STATE 11814),
    (sym_import_from_statement, STATE 11814), (sym_print_statement, STATE 11814),
    (sym_assert_statement, STATE 11814), (sym_comptime_assert_statement, STATE 11814),
    (sym_expression_statement, STATE 11814), (sym_tuple_expression, STATE 12425),
    (sym_named_expression, STATE 7969), (sym__named_expression_lhs, STATE 12752),
    (sym_return_statement, STATE 11814), (sym_delete_statement, STATE 11814),
    (sym_raise_statement, STATE 11814), (sym_pass_statement, STATE 11814),
    (sym_break_statement, STATE 11814), (sym_continue_statement, STATE 11814),
    (sym_extension_definition, STATE 927), (sym_mlir_region, STATE 927),
    (sym_comptime_statement, STATE 927), (sym_if_statement, STATE 927),
    (sym_match_statement, STATE 927), (sym_for_statement, STATE 927),
    (sym_while_statement, STATE 927), (sym_try_statement, STATE 927),
    (sym_with_statement, STATE 927), (sym_function_definition, STATE 927),
    (sym_global_statement, STATE 11814), (sym_nonlocal_statement, STATE 11814),
    (sym_exec_statement, STATE 11814), (sym_type_alias_statement, STATE 11814),
    (sym_parameterized_alias_statement, STATE 11814), (sym_class_definition, STATE 927),
    (sym_trait_definition, STATE 927), (sym_decorated_definition, STATE 927),
    (sym_decorator, STATE 3670), (sym_block, STATE 3916), (sym_pattern, STATE 8086),
    (sym_tuple_pattern, STATE 8101), (sym_list_pattern, STATE 8101),
    (sym_list_splat_pattern, STATE 6819), (sym_as_pattern, STATE 7969),
    (sym_expression, STATE 9883), (sym_primary_expression, STATE 7326),
    (sym_comptime_expression, STATE 7017), (sym_transfer_expression, STATE 7017),
    (sym_not_operator, STATE 7969), (sym_boolean_operator, STATE 7969),
    (sym_binary_operator, STATE 7017), (sym_unary_operator, STATE 7017),
    (sym_comparison_operator, STATE 7969), (sym_lambda, STATE 7969),
    (sym_assignment, STATE 12425), (sym_augmented_assignment, STATE 12425),
    (sym_pattern_list, STATE 8578), (sym_yield, STATE 12425), (sym_attribute, STATE 6836),
    (sym_subscript, STATE 6838), (sym_call, STATE 6845), (sym_mlir_type, STATE 7017),
    (sym_list, STATE 7017), (sym_set, STATE 7017), (sym_tuple, STATE 7017),
    (sym_dictionary, STATE 7017), (sym_struct_literal, STATE 7017),
    (sym_list_comprehension, STATE 7017), (sym_dictionary_comprehension, STATE 7017),
    (sym_set_comprehension, STATE 7017), (sym_generator_expression, STATE 7017),
    (sym_parenthesized_expression, STATE 7017), (sym_conditional_expression, STATE 7969),
    (sym_concatenated_string, STATE 7017), (sym_string, STATE 6751), (sym_await, STATE 7017),
    (aux_sym_module_repeat1, STATE 927), (aux_sym_decorated_definition_repeat1, STATE 3670),
    (sym_identifier, ACTIONS 9), (anon_sym_import, ACTIONS 11), (anon_sym_from, ACTIONS 13),
    (anon_sym_LPAREN, ACTIONS 15), (anon_sym_STAR, ACTIONS 17), (anon_sym_print, ACTIONS 19),
    (anon_sym_comptime, ACTIONS 99), (anon_sym_assert, ACTIONS 23),
    (anon_sym___comptime_assert, ACTIONS 25), (anon_sym_return, ACTIONS 27),
    (anon_sym_del, ACTIONS 29), (anon_sym_raise, ACTIONS 31), (anon_sym_pass, ACTIONS 33),
    (anon_sym_break, ACTIONS 35), (anon_sym_continue, ACTIONS 37),
    (anon_sym___extension, ACTIONS 101), (anon_sym___mlir_region, ACTIONS 103),
    (anon_sym_if, ACTIONS 105), (anon_sym_match, ACTIONS 107), (anon_sym_async, ACTIONS 109),
    (anon_sym_for, ACTIONS 111), (anon_sym_while, ACTIONS 113), (anon_sym_try, ACTIONS 115),
    (anon_sym_with, ACTIONS 117), (anon_sym_def, ACTIONS 119), (anon_sym_fn, ACTIONS 119),
    (anon_sym_LBRACK, ACTIONS 59), (anon_sym_LBRACE, ACTIONS 61), (anon_sym_global, ACTIONS 63),
    (anon_sym_nonlocal, ACTIONS 65), (anon_sym_exec, ACTIONS 67), (anon_sym_type, ACTIONS 69),
    (anon_sym_class, ACTIONS 121), (anon_sym_struct, ACTIONS 121), (anon_sym_mut, ACTIONS 73),
    (anon_sym_out, ACTIONS 73), (anon_sym_trait, ACTIONS 123), (anon_sym_AT, ACTIONS 77),
    (anon_sym_DASH, ACTIONS 79), (anon_sym_PLUS, ACTIONS 79), (anon_sym_ref, ACTIONS 81),
    (anon_sym_var, ACTIONS 81), (anon_sym_not, ACTIONS 83), (anon_sym_TILDE, ACTIONS 79),
    (anon_sym_lambda, ACTIONS 85), (anon_sym_yield, ACTIONS 87), (sym_ellipsis, ACTIONS 89),
    (anon_sym___mlir_type, ACTIONS 91), (sym_integer, ACTIONS 93), (sym_float, ACTIONS 89),
    (anon_sym_await, ACTIONS 95), (sym_true, ACTIONS 93), (sym_false, ACTIONS 93),
    (sym_none, ACTIONS 93), (sym_comment, ACTIONS 3), (sym_line_continuation, ACTIONS 3),
    (sym__dedent, ACTIONS 125), (sym_string_start, ACTIONS 97)]"

definition parse_table_467 :: "(nat \<times> nat) list" where "parse_table_467 = [
    (sym__statement, STATE 927), (sym__simple_statements, STATE 927),
    (sym_import_statement, STATE 11814), (sym_future_import_statement, STATE 11814),
    (sym_import_from_statement, STATE 11814), (sym_print_statement, STATE 11814),
    (sym_assert_statement, STATE 11814), (sym_comptime_assert_statement, STATE 11814),
    (sym_expression_statement, STATE 11814), (sym_tuple_expression, STATE 12425),
    (sym_named_expression, STATE 7969), (sym__named_expression_lhs, STATE 12752),
    (sym_return_statement, STATE 11814), (sym_delete_statement, STATE 11814),
    (sym_raise_statement, STATE 11814), (sym_pass_statement, STATE 11814),
    (sym_break_statement, STATE 11814), (sym_continue_statement, STATE 11814),
    (sym_extension_definition, STATE 927), (sym_mlir_region, STATE 927),
    (sym_comptime_statement, STATE 927), (sym_if_statement, STATE 927),
    (sym_match_statement, STATE 927), (sym_for_statement, STATE 927),
    (sym_while_statement, STATE 927), (sym_try_statement, STATE 927),
    (sym_with_statement, STATE 927), (sym_function_definition, STATE 927),
    (sym_global_statement, STATE 11814), (sym_nonlocal_statement, STATE 11814),
    (sym_exec_statement, STATE 11814), (sym_type_alias_statement, STATE 11814),
    (sym_parameterized_alias_statement, STATE 11814), (sym_class_definition, STATE 927),
    (sym_trait_definition, STATE 927), (sym_decorated_definition, STATE 927),
    (sym_decorator, STATE 3670), (sym_block, STATE 4305), (sym_pattern, STATE 8086),
    (sym_tuple_pattern, STATE 8101), (sym_list_pattern, STATE 8101),
    (sym_list_splat_pattern, STATE 6819), (sym_as_pattern, STATE 7969),
    (sym_expression, STATE 9883), (sym_primary_expression, STATE 7326),
    (sym_comptime_expression, STATE 7017), (sym_transfer_expression, STATE 7017),
    (sym_not_operator, STATE 7969), (sym_boolean_operator, STATE 7969),
    (sym_binary_operator, STATE 7017), (sym_unary_operator, STATE 7017),
    (sym_comparison_operator, STATE 7969), (sym_lambda, STATE 7969),
    (sym_assignment, STATE 12425), (sym_augmented_assignment, STATE 12425),
    (sym_pattern_list, STATE 8578), (sym_yield, STATE 12425), (sym_attribute, STATE 6836),
    (sym_subscript, STATE 6838), (sym_call, STATE 6845), (sym_mlir_type, STATE 7017),
    (sym_list, STATE 7017), (sym_set, STATE 7017), (sym_tuple, STATE 7017),
    (sym_dictionary, STATE 7017), (sym_struct_literal, STATE 7017),
    (sym_list_comprehension, STATE 7017), (sym_dictionary_comprehension, STATE 7017),
    (sym_set_comprehension, STATE 7017), (sym_generator_expression, STATE 7017),
    (sym_parenthesized_expression, STATE 7017), (sym_conditional_expression, STATE 7969),
    (sym_concatenated_string, STATE 7017), (sym_string, STATE 6751), (sym_await, STATE 7017),
    (aux_sym_module_repeat1, STATE 927), (aux_sym_decorated_definition_repeat1, STATE 3670),
    (sym_identifier, ACTIONS 9), (anon_sym_import, ACTIONS 11), (anon_sym_from, ACTIONS 13),
    (anon_sym_LPAREN, ACTIONS 15), (anon_sym_STAR, ACTIONS 17), (anon_sym_print, ACTIONS 19),
    (anon_sym_comptime, ACTIONS 99), (anon_sym_assert, ACTIONS 23),
    (anon_sym___comptime_assert, ACTIONS 25), (anon_sym_return, ACTIONS 27),
    (anon_sym_del, ACTIONS 29), (anon_sym_raise, ACTIONS 31), (anon_sym_pass, ACTIONS 33),
    (anon_sym_break, ACTIONS 35), (anon_sym_continue, ACTIONS 37),
    (anon_sym___extension, ACTIONS 101), (anon_sym___mlir_region, ACTIONS 103),
    (anon_sym_if, ACTIONS 105), (anon_sym_match, ACTIONS 107), (anon_sym_async, ACTIONS 109),
    (anon_sym_for, ACTIONS 111), (anon_sym_while, ACTIONS 113), (anon_sym_try, ACTIONS 115),
    (anon_sym_with, ACTIONS 117), (anon_sym_def, ACTIONS 119), (anon_sym_fn, ACTIONS 119),
    (anon_sym_LBRACK, ACTIONS 59), (anon_sym_LBRACE, ACTIONS 61), (anon_sym_global, ACTIONS 63),
    (anon_sym_nonlocal, ACTIONS 65), (anon_sym_exec, ACTIONS 67), (anon_sym_type, ACTIONS 69),
    (anon_sym_class, ACTIONS 121), (anon_sym_struct, ACTIONS 121), (anon_sym_mut, ACTIONS 73),
    (anon_sym_out, ACTIONS 73), (anon_sym_trait, ACTIONS 123), (anon_sym_AT, ACTIONS 77),
    (anon_sym_DASH, ACTIONS 79), (anon_sym_PLUS, ACTIONS 79), (anon_sym_ref, ACTIONS 81),
    (anon_sym_var, ACTIONS 81), (anon_sym_not, ACTIONS 83), (anon_sym_TILDE, ACTIONS 79),
    (anon_sym_lambda, ACTIONS 85), (anon_sym_yield, ACTIONS 87), (sym_ellipsis, ACTIONS 89),
    (anon_sym___mlir_type, ACTIONS 91), (sym_integer, ACTIONS 93), (sym_float, ACTIONS 89),
    (anon_sym_await, ACTIONS 95), (sym_true, ACTIONS 93), (sym_false, ACTIONS 93),
    (sym_none, ACTIONS 93), (sym_comment, ACTIONS 3), (sym_line_continuation, ACTIONS 3),
    (sym__dedent, ACTIONS 125), (sym_string_start, ACTIONS 97)]"

definition parse_table_468 :: "(nat \<times> nat) list" where "parse_table_468 = [
    (sym__statement, STATE 927), (sym__simple_statements, STATE 927),
    (sym_import_statement, STATE 11814), (sym_future_import_statement, STATE 11814),
    (sym_import_from_statement, STATE 11814), (sym_print_statement, STATE 11814),
    (sym_assert_statement, STATE 11814), (sym_comptime_assert_statement, STATE 11814),
    (sym_expression_statement, STATE 11814), (sym_tuple_expression, STATE 12425),
    (sym_named_expression, STATE 7969), (sym__named_expression_lhs, STATE 12752),
    (sym_return_statement, STATE 11814), (sym_delete_statement, STATE 11814),
    (sym_raise_statement, STATE 11814), (sym_pass_statement, STATE 11814),
    (sym_break_statement, STATE 11814), (sym_continue_statement, STATE 11814),
    (sym_extension_definition, STATE 927), (sym_mlir_region, STATE 927),
    (sym_comptime_statement, STATE 927), (sym_if_statement, STATE 927),
    (sym_match_statement, STATE 927), (sym_for_statement, STATE 927),
    (sym_while_statement, STATE 927), (sym_try_statement, STATE 927),
    (sym_with_statement, STATE 927), (sym_function_definition, STATE 927),
    (sym_global_statement, STATE 11814), (sym_nonlocal_statement, STATE 11814),
    (sym_exec_statement, STATE 11814), (sym_type_alias_statement, STATE 11814),
    (sym_parameterized_alias_statement, STATE 11814), (sym_class_definition, STATE 927),
    (sym_trait_definition, STATE 927), (sym_decorated_definition, STATE 927),
    (sym_decorator, STATE 3670), (sym_block, STATE 4502), (sym_pattern, STATE 8086),
    (sym_tuple_pattern, STATE 8101), (sym_list_pattern, STATE 8101),
    (sym_list_splat_pattern, STATE 6819), (sym_as_pattern, STATE 7969),
    (sym_expression, STATE 9883), (sym_primary_expression, STATE 7326),
    (sym_comptime_expression, STATE 7017), (sym_transfer_expression, STATE 7017),
    (sym_not_operator, STATE 7969), (sym_boolean_operator, STATE 7969),
    (sym_binary_operator, STATE 7017), (sym_unary_operator, STATE 7017),
    (sym_comparison_operator, STATE 7969), (sym_lambda, STATE 7969),
    (sym_assignment, STATE 12425), (sym_augmented_assignment, STATE 12425),
    (sym_pattern_list, STATE 8578), (sym_yield, STATE 12425), (sym_attribute, STATE 6836),
    (sym_subscript, STATE 6838), (sym_call, STATE 6845), (sym_mlir_type, STATE 7017),
    (sym_list, STATE 7017), (sym_set, STATE 7017), (sym_tuple, STATE 7017),
    (sym_dictionary, STATE 7017), (sym_struct_literal, STATE 7017),
    (sym_list_comprehension, STATE 7017), (sym_dictionary_comprehension, STATE 7017),
    (sym_set_comprehension, STATE 7017), (sym_generator_expression, STATE 7017),
    (sym_parenthesized_expression, STATE 7017), (sym_conditional_expression, STATE 7969),
    (sym_concatenated_string, STATE 7017), (sym_string, STATE 6751), (sym_await, STATE 7017),
    (aux_sym_module_repeat1, STATE 927), (aux_sym_decorated_definition_repeat1, STATE 3670),
    (sym_identifier, ACTIONS 9), (anon_sym_import, ACTIONS 11), (anon_sym_from, ACTIONS 13),
    (anon_sym_LPAREN, ACTIONS 15), (anon_sym_STAR, ACTIONS 17), (anon_sym_print, ACTIONS 19),
    (anon_sym_comptime, ACTIONS 99), (anon_sym_assert, ACTIONS 23),
    (anon_sym___comptime_assert, ACTIONS 25), (anon_sym_return, ACTIONS 27),
    (anon_sym_del, ACTIONS 29), (anon_sym_raise, ACTIONS 31), (anon_sym_pass, ACTIONS 33),
    (anon_sym_break, ACTIONS 35), (anon_sym_continue, ACTIONS 37),
    (anon_sym___extension, ACTIONS 101), (anon_sym___mlir_region, ACTIONS 103),
    (anon_sym_if, ACTIONS 105), (anon_sym_match, ACTIONS 107), (anon_sym_async, ACTIONS 109),
    (anon_sym_for, ACTIONS 111), (anon_sym_while, ACTIONS 113), (anon_sym_try, ACTIONS 115),
    (anon_sym_with, ACTIONS 117), (anon_sym_def, ACTIONS 119), (anon_sym_fn, ACTIONS 119),
    (anon_sym_LBRACK, ACTIONS 59), (anon_sym_LBRACE, ACTIONS 61), (anon_sym_global, ACTIONS 63),
    (anon_sym_nonlocal, ACTIONS 65), (anon_sym_exec, ACTIONS 67), (anon_sym_type, ACTIONS 69),
    (anon_sym_class, ACTIONS 121), (anon_sym_struct, ACTIONS 121), (anon_sym_mut, ACTIONS 73),
    (anon_sym_out, ACTIONS 73), (anon_sym_trait, ACTIONS 123), (anon_sym_AT, ACTIONS 77),
    (anon_sym_DASH, ACTIONS 79), (anon_sym_PLUS, ACTIONS 79), (anon_sym_ref, ACTIONS 81),
    (anon_sym_var, ACTIONS 81), (anon_sym_not, ACTIONS 83), (anon_sym_TILDE, ACTIONS 79),
    (anon_sym_lambda, ACTIONS 85), (anon_sym_yield, ACTIONS 87), (sym_ellipsis, ACTIONS 89),
    (anon_sym___mlir_type, ACTIONS 91), (sym_integer, ACTIONS 93), (sym_float, ACTIONS 89),
    (anon_sym_await, ACTIONS 95), (sym_true, ACTIONS 93), (sym_false, ACTIONS 93),
    (sym_none, ACTIONS 93), (sym_comment, ACTIONS 3), (sym_line_continuation, ACTIONS 3),
    (sym__dedent, ACTIONS 125), (sym_string_start, ACTIONS 97)]"

definition parse_table_469 :: "(nat \<times> nat) list" where "parse_table_469 = [
    (sym__statement, STATE 927), (sym__simple_statements, STATE 927),
    (sym_import_statement, STATE 11814), (sym_future_import_statement, STATE 11814),
    (sym_import_from_statement, STATE 11814), (sym_print_statement, STATE 11814),
    (sym_assert_statement, STATE 11814), (sym_comptime_assert_statement, STATE 11814),
    (sym_expression_statement, STATE 11814), (sym_tuple_expression, STATE 12425),
    (sym_named_expression, STATE 7969), (sym__named_expression_lhs, STATE 12752),
    (sym_return_statement, STATE 11814), (sym_delete_statement, STATE 11814),
    (sym_raise_statement, STATE 11814), (sym_pass_statement, STATE 11814),
    (sym_break_statement, STATE 11814), (sym_continue_statement, STATE 11814),
    (sym_extension_definition, STATE 927), (sym_mlir_region, STATE 927),
    (sym_comptime_statement, STATE 927), (sym_if_statement, STATE 927),
    (sym_match_statement, STATE 927), (sym_for_statement, STATE 927),
    (sym_while_statement, STATE 927), (sym_try_statement, STATE 927),
    (sym_with_statement, STATE 927), (sym_function_definition, STATE 927),
    (sym_global_statement, STATE 11814), (sym_nonlocal_statement, STATE 11814),
    (sym_exec_statement, STATE 11814), (sym_type_alias_statement, STATE 11814),
    (sym_parameterized_alias_statement, STATE 11814), (sym_class_definition, STATE 927),
    (sym_trait_definition, STATE 927), (sym_decorated_definition, STATE 927),
    (sym_decorator, STATE 3670), (sym_block, STATE 4505), (sym_pattern, STATE 8086),
    (sym_tuple_pattern, STATE 8101), (sym_list_pattern, STATE 8101),
    (sym_list_splat_pattern, STATE 6819), (sym_as_pattern, STATE 7969),
    (sym_expression, STATE 9883), (sym_primary_expression, STATE 7326),
    (sym_comptime_expression, STATE 7017), (sym_transfer_expression, STATE 7017),
    (sym_not_operator, STATE 7969), (sym_boolean_operator, STATE 7969),
    (sym_binary_operator, STATE 7017), (sym_unary_operator, STATE 7017),
    (sym_comparison_operator, STATE 7969), (sym_lambda, STATE 7969),
    (sym_assignment, STATE 12425), (sym_augmented_assignment, STATE 12425),
    (sym_pattern_list, STATE 8578), (sym_yield, STATE 12425), (sym_attribute, STATE 6836),
    (sym_subscript, STATE 6838), (sym_call, STATE 6845), (sym_mlir_type, STATE 7017),
    (sym_list, STATE 7017), (sym_set, STATE 7017), (sym_tuple, STATE 7017),
    (sym_dictionary, STATE 7017), (sym_struct_literal, STATE 7017),
    (sym_list_comprehension, STATE 7017), (sym_dictionary_comprehension, STATE 7017),
    (sym_set_comprehension, STATE 7017), (sym_generator_expression, STATE 7017),
    (sym_parenthesized_expression, STATE 7017), (sym_conditional_expression, STATE 7969),
    (sym_concatenated_string, STATE 7017), (sym_string, STATE 6751), (sym_await, STATE 7017),
    (aux_sym_module_repeat1, STATE 927), (aux_sym_decorated_definition_repeat1, STATE 3670),
    (sym_identifier, ACTIONS 9), (anon_sym_import, ACTIONS 11), (anon_sym_from, ACTIONS 13),
    (anon_sym_LPAREN, ACTIONS 15), (anon_sym_STAR, ACTIONS 17), (anon_sym_print, ACTIONS 19),
    (anon_sym_comptime, ACTIONS 99), (anon_sym_assert, ACTIONS 23),
    (anon_sym___comptime_assert, ACTIONS 25), (anon_sym_return, ACTIONS 27),
    (anon_sym_del, ACTIONS 29), (anon_sym_raise, ACTIONS 31), (anon_sym_pass, ACTIONS 33),
    (anon_sym_break, ACTIONS 35), (anon_sym_continue, ACTIONS 37),
    (anon_sym___extension, ACTIONS 101), (anon_sym___mlir_region, ACTIONS 103),
    (anon_sym_if, ACTIONS 105), (anon_sym_match, ACTIONS 107), (anon_sym_async, ACTIONS 109),
    (anon_sym_for, ACTIONS 111), (anon_sym_while, ACTIONS 113), (anon_sym_try, ACTIONS 115),
    (anon_sym_with, ACTIONS 117), (anon_sym_def, ACTIONS 119), (anon_sym_fn, ACTIONS 119),
    (anon_sym_LBRACK, ACTIONS 59), (anon_sym_LBRACE, ACTIONS 61), (anon_sym_global, ACTIONS 63),
    (anon_sym_nonlocal, ACTIONS 65), (anon_sym_exec, ACTIONS 67), (anon_sym_type, ACTIONS 69),
    (anon_sym_class, ACTIONS 121), (anon_sym_struct, ACTIONS 121), (anon_sym_mut, ACTIONS 73),
    (anon_sym_out, ACTIONS 73), (anon_sym_trait, ACTIONS 123), (anon_sym_AT, ACTIONS 77),
    (anon_sym_DASH, ACTIONS 79), (anon_sym_PLUS, ACTIONS 79), (anon_sym_ref, ACTIONS 81),
    (anon_sym_var, ACTIONS 81), (anon_sym_not, ACTIONS 83), (anon_sym_TILDE, ACTIONS 79),
    (anon_sym_lambda, ACTIONS 85), (anon_sym_yield, ACTIONS 87), (sym_ellipsis, ACTIONS 89),
    (anon_sym___mlir_type, ACTIONS 91), (sym_integer, ACTIONS 93), (sym_float, ACTIONS 89),
    (anon_sym_await, ACTIONS 95), (sym_true, ACTIONS 93), (sym_false, ACTIONS 93),
    (sym_none, ACTIONS 93), (sym_comment, ACTIONS 3), (sym_line_continuation, ACTIONS 3),
    (sym__dedent, ACTIONS 125), (sym_string_start, ACTIONS 97)]"

definition parse_table_470 :: "(nat \<times> nat) list" where "parse_table_470 = [
    (sym__statement, STATE 927), (sym__simple_statements, STATE 927),
    (sym_import_statement, STATE 11814), (sym_future_import_statement, STATE 11814),
    (sym_import_from_statement, STATE 11814), (sym_print_statement, STATE 11814),
    (sym_assert_statement, STATE 11814), (sym_comptime_assert_statement, STATE 11814),
    (sym_expression_statement, STATE 11814), (sym_tuple_expression, STATE 12425),
    (sym_named_expression, STATE 7969), (sym__named_expression_lhs, STATE 12752),
    (sym_return_statement, STATE 11814), (sym_delete_statement, STATE 11814),
    (sym_raise_statement, STATE 11814), (sym_pass_statement, STATE 11814),
    (sym_break_statement, STATE 11814), (sym_continue_statement, STATE 11814),
    (sym_extension_definition, STATE 927), (sym_mlir_region, STATE 927),
    (sym_comptime_statement, STATE 927), (sym_if_statement, STATE 927),
    (sym_match_statement, STATE 927), (sym_for_statement, STATE 927),
    (sym_while_statement, STATE 927), (sym_try_statement, STATE 927),
    (sym_with_statement, STATE 927), (sym_function_definition, STATE 927),
    (sym_global_statement, STATE 11814), (sym_nonlocal_statement, STATE 11814),
    (sym_exec_statement, STATE 11814), (sym_type_alias_statement, STATE 11814),
    (sym_parameterized_alias_statement, STATE 11814), (sym_class_definition, STATE 927),
    (sym_trait_definition, STATE 927), (sym_decorated_definition, STATE 927),
    (sym_decorator, STATE 3670), (sym_block, STATE 4510), (sym_pattern, STATE 8086),
    (sym_tuple_pattern, STATE 8101), (sym_list_pattern, STATE 8101),
    (sym_list_splat_pattern, STATE 6819), (sym_as_pattern, STATE 7969),
    (sym_expression, STATE 9883), (sym_primary_expression, STATE 7326),
    (sym_comptime_expression, STATE 7017), (sym_transfer_expression, STATE 7017),
    (sym_not_operator, STATE 7969), (sym_boolean_operator, STATE 7969),
    (sym_binary_operator, STATE 7017), (sym_unary_operator, STATE 7017),
    (sym_comparison_operator, STATE 7969), (sym_lambda, STATE 7969),
    (sym_assignment, STATE 12425), (sym_augmented_assignment, STATE 12425),
    (sym_pattern_list, STATE 8578), (sym_yield, STATE 12425), (sym_attribute, STATE 6836),
    (sym_subscript, STATE 6838), (sym_call, STATE 6845), (sym_mlir_type, STATE 7017),
    (sym_list, STATE 7017), (sym_set, STATE 7017), (sym_tuple, STATE 7017),
    (sym_dictionary, STATE 7017), (sym_struct_literal, STATE 7017),
    (sym_list_comprehension, STATE 7017), (sym_dictionary_comprehension, STATE 7017),
    (sym_set_comprehension, STATE 7017), (sym_generator_expression, STATE 7017),
    (sym_parenthesized_expression, STATE 7017), (sym_conditional_expression, STATE 7969),
    (sym_concatenated_string, STATE 7017), (sym_string, STATE 6751), (sym_await, STATE 7017),
    (aux_sym_module_repeat1, STATE 927), (aux_sym_decorated_definition_repeat1, STATE 3670),
    (sym_identifier, ACTIONS 9), (anon_sym_import, ACTIONS 11), (anon_sym_from, ACTIONS 13),
    (anon_sym_LPAREN, ACTIONS 15), (anon_sym_STAR, ACTIONS 17), (anon_sym_print, ACTIONS 19),
    (anon_sym_comptime, ACTIONS 99), (anon_sym_assert, ACTIONS 23),
    (anon_sym___comptime_assert, ACTIONS 25), (anon_sym_return, ACTIONS 27),
    (anon_sym_del, ACTIONS 29), (anon_sym_raise, ACTIONS 31), (anon_sym_pass, ACTIONS 33),
    (anon_sym_break, ACTIONS 35), (anon_sym_continue, ACTIONS 37),
    (anon_sym___extension, ACTIONS 101), (anon_sym___mlir_region, ACTIONS 103),
    (anon_sym_if, ACTIONS 105), (anon_sym_match, ACTIONS 107), (anon_sym_async, ACTIONS 109),
    (anon_sym_for, ACTIONS 111), (anon_sym_while, ACTIONS 113), (anon_sym_try, ACTIONS 115),
    (anon_sym_with, ACTIONS 117), (anon_sym_def, ACTIONS 119), (anon_sym_fn, ACTIONS 119),
    (anon_sym_LBRACK, ACTIONS 59), (anon_sym_LBRACE, ACTIONS 61), (anon_sym_global, ACTIONS 63),
    (anon_sym_nonlocal, ACTIONS 65), (anon_sym_exec, ACTIONS 67), (anon_sym_type, ACTIONS 69),
    (anon_sym_class, ACTIONS 121), (anon_sym_struct, ACTIONS 121), (anon_sym_mut, ACTIONS 73),
    (anon_sym_out, ACTIONS 73), (anon_sym_trait, ACTIONS 123), (anon_sym_AT, ACTIONS 77),
    (anon_sym_DASH, ACTIONS 79), (anon_sym_PLUS, ACTIONS 79), (anon_sym_ref, ACTIONS 81),
    (anon_sym_var, ACTIONS 81), (anon_sym_not, ACTIONS 83), (anon_sym_TILDE, ACTIONS 79),
    (anon_sym_lambda, ACTIONS 85), (anon_sym_yield, ACTIONS 87), (sym_ellipsis, ACTIONS 89),
    (anon_sym___mlir_type, ACTIONS 91), (sym_integer, ACTIONS 93), (sym_float, ACTIONS 89),
    (anon_sym_await, ACTIONS 95), (sym_true, ACTIONS 93), (sym_false, ACTIONS 93),
    (sym_none, ACTIONS 93), (sym_comment, ACTIONS 3), (sym_line_continuation, ACTIONS 3),
    (sym__dedent, ACTIONS 125), (sym_string_start, ACTIONS 97)]"

definition parse_table_471 :: "(nat \<times> nat) list" where "parse_table_471 = [
    (sym__statement, STATE 927), (sym__simple_statements, STATE 927),
    (sym_import_statement, STATE 11814), (sym_future_import_statement, STATE 11814),
    (sym_import_from_statement, STATE 11814), (sym_print_statement, STATE 11814),
    (sym_assert_statement, STATE 11814), (sym_comptime_assert_statement, STATE 11814),
    (sym_expression_statement, STATE 11814), (sym_tuple_expression, STATE 12425),
    (sym_named_expression, STATE 7969), (sym__named_expression_lhs, STATE 12752),
    (sym_return_statement, STATE 11814), (sym_delete_statement, STATE 11814),
    (sym_raise_statement, STATE 11814), (sym_pass_statement, STATE 11814),
    (sym_break_statement, STATE 11814), (sym_continue_statement, STATE 11814),
    (sym_extension_definition, STATE 927), (sym_mlir_region, STATE 927),
    (sym_comptime_statement, STATE 927), (sym_if_statement, STATE 927),
    (sym_match_statement, STATE 927), (sym_for_statement, STATE 927),
    (sym_while_statement, STATE 927), (sym_try_statement, STATE 927),
    (sym_with_statement, STATE 927), (sym_function_definition, STATE 927),
    (sym_global_statement, STATE 11814), (sym_nonlocal_statement, STATE 11814),
    (sym_exec_statement, STATE 11814), (sym_type_alias_statement, STATE 11814),
    (sym_parameterized_alias_statement, STATE 11814), (sym_class_definition, STATE 927),
    (sym_trait_definition, STATE 927), (sym_decorated_definition, STATE 927),
    (sym_decorator, STATE 3670), (sym_block, STATE 4519), (sym_pattern, STATE 8086),
    (sym_tuple_pattern, STATE 8101), (sym_list_pattern, STATE 8101),
    (sym_list_splat_pattern, STATE 6819), (sym_as_pattern, STATE 7969),
    (sym_expression, STATE 9883), (sym_primary_expression, STATE 7326),
    (sym_comptime_expression, STATE 7017), (sym_transfer_expression, STATE 7017),
    (sym_not_operator, STATE 7969), (sym_boolean_operator, STATE 7969),
    (sym_binary_operator, STATE 7017), (sym_unary_operator, STATE 7017),
    (sym_comparison_operator, STATE 7969), (sym_lambda, STATE 7969),
    (sym_assignment, STATE 12425), (sym_augmented_assignment, STATE 12425),
    (sym_pattern_list, STATE 8578), (sym_yield, STATE 12425), (sym_attribute, STATE 6836),
    (sym_subscript, STATE 6838), (sym_call, STATE 6845), (sym_mlir_type, STATE 7017),
    (sym_list, STATE 7017), (sym_set, STATE 7017), (sym_tuple, STATE 7017),
    (sym_dictionary, STATE 7017), (sym_struct_literal, STATE 7017),
    (sym_list_comprehension, STATE 7017), (sym_dictionary_comprehension, STATE 7017),
    (sym_set_comprehension, STATE 7017), (sym_generator_expression, STATE 7017),
    (sym_parenthesized_expression, STATE 7017), (sym_conditional_expression, STATE 7969),
    (sym_concatenated_string, STATE 7017), (sym_string, STATE 6751), (sym_await, STATE 7017),
    (aux_sym_module_repeat1, STATE 927), (aux_sym_decorated_definition_repeat1, STATE 3670),
    (sym_identifier, ACTIONS 9), (anon_sym_import, ACTIONS 11), (anon_sym_from, ACTIONS 13),
    (anon_sym_LPAREN, ACTIONS 15), (anon_sym_STAR, ACTIONS 17), (anon_sym_print, ACTIONS 19),
    (anon_sym_comptime, ACTIONS 99), (anon_sym_assert, ACTIONS 23),
    (anon_sym___comptime_assert, ACTIONS 25), (anon_sym_return, ACTIONS 27),
    (anon_sym_del, ACTIONS 29), (anon_sym_raise, ACTIONS 31), (anon_sym_pass, ACTIONS 33),
    (anon_sym_break, ACTIONS 35), (anon_sym_continue, ACTIONS 37),
    (anon_sym___extension, ACTIONS 101), (anon_sym___mlir_region, ACTIONS 103),
    (anon_sym_if, ACTIONS 105), (anon_sym_match, ACTIONS 107), (anon_sym_async, ACTIONS 109),
    (anon_sym_for, ACTIONS 111), (anon_sym_while, ACTIONS 113), (anon_sym_try, ACTIONS 115),
    (anon_sym_with, ACTIONS 117), (anon_sym_def, ACTIONS 119), (anon_sym_fn, ACTIONS 119),
    (anon_sym_LBRACK, ACTIONS 59), (anon_sym_LBRACE, ACTIONS 61), (anon_sym_global, ACTIONS 63),
    (anon_sym_nonlocal, ACTIONS 65), (anon_sym_exec, ACTIONS 67), (anon_sym_type, ACTIONS 69),
    (anon_sym_class, ACTIONS 121), (anon_sym_struct, ACTIONS 121), (anon_sym_mut, ACTIONS 73),
    (anon_sym_out, ACTIONS 73), (anon_sym_trait, ACTIONS 123), (anon_sym_AT, ACTIONS 77),
    (anon_sym_DASH, ACTIONS 79), (anon_sym_PLUS, ACTIONS 79), (anon_sym_ref, ACTIONS 81),
    (anon_sym_var, ACTIONS 81), (anon_sym_not, ACTIONS 83), (anon_sym_TILDE, ACTIONS 79),
    (anon_sym_lambda, ACTIONS 85), (anon_sym_yield, ACTIONS 87), (sym_ellipsis, ACTIONS 89),
    (anon_sym___mlir_type, ACTIONS 91), (sym_integer, ACTIONS 93), (sym_float, ACTIONS 89),
    (anon_sym_await, ACTIONS 95), (sym_true, ACTIONS 93), (sym_false, ACTIONS 93),
    (sym_none, ACTIONS 93), (sym_comment, ACTIONS 3), (sym_line_continuation, ACTIONS 3),
    (sym__dedent, ACTIONS 125), (sym_string_start, ACTIONS 97)]"

definition parse_table_472 :: "(nat \<times> nat) list" where "parse_table_472 = [
    (sym__statement, STATE 927), (sym__simple_statements, STATE 927),
    (sym_import_statement, STATE 11814), (sym_future_import_statement, STATE 11814),
    (sym_import_from_statement, STATE 11814), (sym_print_statement, STATE 11814),
    (sym_assert_statement, STATE 11814), (sym_comptime_assert_statement, STATE 11814),
    (sym_expression_statement, STATE 11814), (sym_tuple_expression, STATE 12425),
    (sym_named_expression, STATE 7969), (sym__named_expression_lhs, STATE 12752),
    (sym_return_statement, STATE 11814), (sym_delete_statement, STATE 11814),
    (sym_raise_statement, STATE 11814), (sym_pass_statement, STATE 11814),
    (sym_break_statement, STATE 11814), (sym_continue_statement, STATE 11814),
    (sym_extension_definition, STATE 927), (sym_mlir_region, STATE 927),
    (sym_comptime_statement, STATE 927), (sym_if_statement, STATE 927),
    (sym_match_statement, STATE 927), (sym_for_statement, STATE 927),
    (sym_while_statement, STATE 927), (sym_try_statement, STATE 927),
    (sym_with_statement, STATE 927), (sym_function_definition, STATE 927),
    (sym_global_statement, STATE 11814), (sym_nonlocal_statement, STATE 11814),
    (sym_exec_statement, STATE 11814), (sym_type_alias_statement, STATE 11814),
    (sym_parameterized_alias_statement, STATE 11814), (sym_class_definition, STATE 927),
    (sym_trait_definition, STATE 927), (sym_decorated_definition, STATE 927),
    (sym_decorator, STATE 3670), (sym_block, STATE 4532), (sym_pattern, STATE 8086),
    (sym_tuple_pattern, STATE 8101), (sym_list_pattern, STATE 8101),
    (sym_list_splat_pattern, STATE 6819), (sym_as_pattern, STATE 7969),
    (sym_expression, STATE 9883), (sym_primary_expression, STATE 7326),
    (sym_comptime_expression, STATE 7017), (sym_transfer_expression, STATE 7017),
    (sym_not_operator, STATE 7969), (sym_boolean_operator, STATE 7969),
    (sym_binary_operator, STATE 7017), (sym_unary_operator, STATE 7017),
    (sym_comparison_operator, STATE 7969), (sym_lambda, STATE 7969),
    (sym_assignment, STATE 12425), (sym_augmented_assignment, STATE 12425),
    (sym_pattern_list, STATE 8578), (sym_yield, STATE 12425), (sym_attribute, STATE 6836),
    (sym_subscript, STATE 6838), (sym_call, STATE 6845), (sym_mlir_type, STATE 7017),
    (sym_list, STATE 7017), (sym_set, STATE 7017), (sym_tuple, STATE 7017),
    (sym_dictionary, STATE 7017), (sym_struct_literal, STATE 7017),
    (sym_list_comprehension, STATE 7017), (sym_dictionary_comprehension, STATE 7017),
    (sym_set_comprehension, STATE 7017), (sym_generator_expression, STATE 7017),
    (sym_parenthesized_expression, STATE 7017), (sym_conditional_expression, STATE 7969),
    (sym_concatenated_string, STATE 7017), (sym_string, STATE 6751), (sym_await, STATE 7017),
    (aux_sym_module_repeat1, STATE 927), (aux_sym_decorated_definition_repeat1, STATE 3670),
    (sym_identifier, ACTIONS 9), (anon_sym_import, ACTIONS 11), (anon_sym_from, ACTIONS 13),
    (anon_sym_LPAREN, ACTIONS 15), (anon_sym_STAR, ACTIONS 17), (anon_sym_print, ACTIONS 19),
    (anon_sym_comptime, ACTIONS 99), (anon_sym_assert, ACTIONS 23),
    (anon_sym___comptime_assert, ACTIONS 25), (anon_sym_return, ACTIONS 27),
    (anon_sym_del, ACTIONS 29), (anon_sym_raise, ACTIONS 31), (anon_sym_pass, ACTIONS 33),
    (anon_sym_break, ACTIONS 35), (anon_sym_continue, ACTIONS 37),
    (anon_sym___extension, ACTIONS 101), (anon_sym___mlir_region, ACTIONS 103),
    (anon_sym_if, ACTIONS 105), (anon_sym_match, ACTIONS 107), (anon_sym_async, ACTIONS 109),
    (anon_sym_for, ACTIONS 111), (anon_sym_while, ACTIONS 113), (anon_sym_try, ACTIONS 115),
    (anon_sym_with, ACTIONS 117), (anon_sym_def, ACTIONS 119), (anon_sym_fn, ACTIONS 119),
    (anon_sym_LBRACK, ACTIONS 59), (anon_sym_LBRACE, ACTIONS 61), (anon_sym_global, ACTIONS 63),
    (anon_sym_nonlocal, ACTIONS 65), (anon_sym_exec, ACTIONS 67), (anon_sym_type, ACTIONS 69),
    (anon_sym_class, ACTIONS 121), (anon_sym_struct, ACTIONS 121), (anon_sym_mut, ACTIONS 73),
    (anon_sym_out, ACTIONS 73), (anon_sym_trait, ACTIONS 123), (anon_sym_AT, ACTIONS 77),
    (anon_sym_DASH, ACTIONS 79), (anon_sym_PLUS, ACTIONS 79), (anon_sym_ref, ACTIONS 81),
    (anon_sym_var, ACTIONS 81), (anon_sym_not, ACTIONS 83), (anon_sym_TILDE, ACTIONS 79),
    (anon_sym_lambda, ACTIONS 85), (anon_sym_yield, ACTIONS 87), (sym_ellipsis, ACTIONS 89),
    (anon_sym___mlir_type, ACTIONS 91), (sym_integer, ACTIONS 93), (sym_float, ACTIONS 89),
    (anon_sym_await, ACTIONS 95), (sym_true, ACTIONS 93), (sym_false, ACTIONS 93),
    (sym_none, ACTIONS 93), (sym_comment, ACTIONS 3), (sym_line_continuation, ACTIONS 3),
    (sym__dedent, ACTIONS 125), (sym_string_start, ACTIONS 97)]"

definition parse_table_473 :: "(nat \<times> nat) list" where "parse_table_473 = [
    (sym__statement, STATE 927), (sym__simple_statements, STATE 927),
    (sym_import_statement, STATE 11814), (sym_future_import_statement, STATE 11814),
    (sym_import_from_statement, STATE 11814), (sym_print_statement, STATE 11814),
    (sym_assert_statement, STATE 11814), (sym_comptime_assert_statement, STATE 11814),
    (sym_expression_statement, STATE 11814), (sym_tuple_expression, STATE 12425),
    (sym_named_expression, STATE 7969), (sym__named_expression_lhs, STATE 12752),
    (sym_return_statement, STATE 11814), (sym_delete_statement, STATE 11814),
    (sym_raise_statement, STATE 11814), (sym_pass_statement, STATE 11814),
    (sym_break_statement, STATE 11814), (sym_continue_statement, STATE 11814),
    (sym_extension_definition, STATE 927), (sym_mlir_region, STATE 927),
    (sym_comptime_statement, STATE 927), (sym_if_statement, STATE 927),
    (sym_match_statement, STATE 927), (sym_for_statement, STATE 927),
    (sym_while_statement, STATE 927), (sym_try_statement, STATE 927),
    (sym_with_statement, STATE 927), (sym_function_definition, STATE 927),
    (sym_global_statement, STATE 11814), (sym_nonlocal_statement, STATE 11814),
    (sym_exec_statement, STATE 11814), (sym_type_alias_statement, STATE 11814),
    (sym_parameterized_alias_statement, STATE 11814), (sym_class_definition, STATE 927),
    (sym_trait_definition, STATE 927), (sym_decorated_definition, STATE 927),
    (sym_decorator, STATE 3670), (sym_block, STATE 4544), (sym_pattern, STATE 8086),
    (sym_tuple_pattern, STATE 8101), (sym_list_pattern, STATE 8101),
    (sym_list_splat_pattern, STATE 6819), (sym_as_pattern, STATE 7969),
    (sym_expression, STATE 9883), (sym_primary_expression, STATE 7326),
    (sym_comptime_expression, STATE 7017), (sym_transfer_expression, STATE 7017),
    (sym_not_operator, STATE 7969), (sym_boolean_operator, STATE 7969),
    (sym_binary_operator, STATE 7017), (sym_unary_operator, STATE 7017),
    (sym_comparison_operator, STATE 7969), (sym_lambda, STATE 7969),
    (sym_assignment, STATE 12425), (sym_augmented_assignment, STATE 12425),
    (sym_pattern_list, STATE 8578), (sym_yield, STATE 12425), (sym_attribute, STATE 6836),
    (sym_subscript, STATE 6838), (sym_call, STATE 6845), (sym_mlir_type, STATE 7017),
    (sym_list, STATE 7017), (sym_set, STATE 7017), (sym_tuple, STATE 7017),
    (sym_dictionary, STATE 7017), (sym_struct_literal, STATE 7017),
    (sym_list_comprehension, STATE 7017), (sym_dictionary_comprehension, STATE 7017),
    (sym_set_comprehension, STATE 7017), (sym_generator_expression, STATE 7017),
    (sym_parenthesized_expression, STATE 7017), (sym_conditional_expression, STATE 7969),
    (sym_concatenated_string, STATE 7017), (sym_string, STATE 6751), (sym_await, STATE 7017),
    (aux_sym_module_repeat1, STATE 927), (aux_sym_decorated_definition_repeat1, STATE 3670),
    (sym_identifier, ACTIONS 9), (anon_sym_import, ACTIONS 11), (anon_sym_from, ACTIONS 13),
    (anon_sym_LPAREN, ACTIONS 15), (anon_sym_STAR, ACTIONS 17), (anon_sym_print, ACTIONS 19),
    (anon_sym_comptime, ACTIONS 99), (anon_sym_assert, ACTIONS 23),
    (anon_sym___comptime_assert, ACTIONS 25), (anon_sym_return, ACTIONS 27),
    (anon_sym_del, ACTIONS 29), (anon_sym_raise, ACTIONS 31), (anon_sym_pass, ACTIONS 33),
    (anon_sym_break, ACTIONS 35), (anon_sym_continue, ACTIONS 37),
    (anon_sym___extension, ACTIONS 101), (anon_sym___mlir_region, ACTIONS 103),
    (anon_sym_if, ACTIONS 105), (anon_sym_match, ACTIONS 107), (anon_sym_async, ACTIONS 109),
    (anon_sym_for, ACTIONS 111), (anon_sym_while, ACTIONS 113), (anon_sym_try, ACTIONS 115),
    (anon_sym_with, ACTIONS 117), (anon_sym_def, ACTIONS 119), (anon_sym_fn, ACTIONS 119),
    (anon_sym_LBRACK, ACTIONS 59), (anon_sym_LBRACE, ACTIONS 61), (anon_sym_global, ACTIONS 63),
    (anon_sym_nonlocal, ACTIONS 65), (anon_sym_exec, ACTIONS 67), (anon_sym_type, ACTIONS 69),
    (anon_sym_class, ACTIONS 121), (anon_sym_struct, ACTIONS 121), (anon_sym_mut, ACTIONS 73),
    (anon_sym_out, ACTIONS 73), (anon_sym_trait, ACTIONS 123), (anon_sym_AT, ACTIONS 77),
    (anon_sym_DASH, ACTIONS 79), (anon_sym_PLUS, ACTIONS 79), (anon_sym_ref, ACTIONS 81),
    (anon_sym_var, ACTIONS 81), (anon_sym_not, ACTIONS 83), (anon_sym_TILDE, ACTIONS 79),
    (anon_sym_lambda, ACTIONS 85), (anon_sym_yield, ACTIONS 87), (sym_ellipsis, ACTIONS 89),
    (anon_sym___mlir_type, ACTIONS 91), (sym_integer, ACTIONS 93), (sym_float, ACTIONS 89),
    (anon_sym_await, ACTIONS 95), (sym_true, ACTIONS 93), (sym_false, ACTIONS 93),
    (sym_none, ACTIONS 93), (sym_comment, ACTIONS 3), (sym_line_continuation, ACTIONS 3),
    (sym__dedent, ACTIONS 125), (sym_string_start, ACTIONS 97)]"

definition parse_table_474 :: "(nat \<times> nat) list" where "parse_table_474 = [
    (sym__statement, STATE 927), (sym__simple_statements, STATE 927),
    (sym_import_statement, STATE 11814), (sym_future_import_statement, STATE 11814),
    (sym_import_from_statement, STATE 11814), (sym_print_statement, STATE 11814),
    (sym_assert_statement, STATE 11814), (sym_comptime_assert_statement, STATE 11814),
    (sym_expression_statement, STATE 11814), (sym_tuple_expression, STATE 12425),
    (sym_named_expression, STATE 7969), (sym__named_expression_lhs, STATE 12752),
    (sym_return_statement, STATE 11814), (sym_delete_statement, STATE 11814),
    (sym_raise_statement, STATE 11814), (sym_pass_statement, STATE 11814),
    (sym_break_statement, STATE 11814), (sym_continue_statement, STATE 11814),
    (sym_extension_definition, STATE 927), (sym_mlir_region, STATE 927),
    (sym_comptime_statement, STATE 927), (sym_if_statement, STATE 927),
    (sym_match_statement, STATE 927), (sym_for_statement, STATE 927),
    (sym_while_statement, STATE 927), (sym_try_statement, STATE 927),
    (sym_with_statement, STATE 927), (sym_function_definition, STATE 927),
    (sym_global_statement, STATE 11814), (sym_nonlocal_statement, STATE 11814),
    (sym_exec_statement, STATE 11814), (sym_type_alias_statement, STATE 11814),
    (sym_parameterized_alias_statement, STATE 11814), (sym_class_definition, STATE 927),
    (sym_trait_definition, STATE 927), (sym_decorated_definition, STATE 927),
    (sym_decorator, STATE 3670), (sym_block, STATE 4557), (sym_pattern, STATE 8086),
    (sym_tuple_pattern, STATE 8101), (sym_list_pattern, STATE 8101),
    (sym_list_splat_pattern, STATE 6819), (sym_as_pattern, STATE 7969),
    (sym_expression, STATE 9883), (sym_primary_expression, STATE 7326),
    (sym_comptime_expression, STATE 7017), (sym_transfer_expression, STATE 7017),
    (sym_not_operator, STATE 7969), (sym_boolean_operator, STATE 7969),
    (sym_binary_operator, STATE 7017), (sym_unary_operator, STATE 7017),
    (sym_comparison_operator, STATE 7969), (sym_lambda, STATE 7969),
    (sym_assignment, STATE 12425), (sym_augmented_assignment, STATE 12425),
    (sym_pattern_list, STATE 8578), (sym_yield, STATE 12425), (sym_attribute, STATE 6836),
    (sym_subscript, STATE 6838), (sym_call, STATE 6845), (sym_mlir_type, STATE 7017),
    (sym_list, STATE 7017), (sym_set, STATE 7017), (sym_tuple, STATE 7017),
    (sym_dictionary, STATE 7017), (sym_struct_literal, STATE 7017),
    (sym_list_comprehension, STATE 7017), (sym_dictionary_comprehension, STATE 7017),
    (sym_set_comprehension, STATE 7017), (sym_generator_expression, STATE 7017),
    (sym_parenthesized_expression, STATE 7017), (sym_conditional_expression, STATE 7969),
    (sym_concatenated_string, STATE 7017), (sym_string, STATE 6751), (sym_await, STATE 7017),
    (aux_sym_module_repeat1, STATE 927), (aux_sym_decorated_definition_repeat1, STATE 3670),
    (sym_identifier, ACTIONS 9), (anon_sym_import, ACTIONS 11), (anon_sym_from, ACTIONS 13),
    (anon_sym_LPAREN, ACTIONS 15), (anon_sym_STAR, ACTIONS 17), (anon_sym_print, ACTIONS 19),
    (anon_sym_comptime, ACTIONS 99), (anon_sym_assert, ACTIONS 23),
    (anon_sym___comptime_assert, ACTIONS 25), (anon_sym_return, ACTIONS 27),
    (anon_sym_del, ACTIONS 29), (anon_sym_raise, ACTIONS 31), (anon_sym_pass, ACTIONS 33),
    (anon_sym_break, ACTIONS 35), (anon_sym_continue, ACTIONS 37),
    (anon_sym___extension, ACTIONS 101), (anon_sym___mlir_region, ACTIONS 103),
    (anon_sym_if, ACTIONS 105), (anon_sym_match, ACTIONS 107), (anon_sym_async, ACTIONS 109),
    (anon_sym_for, ACTIONS 111), (anon_sym_while, ACTIONS 113), (anon_sym_try, ACTIONS 115),
    (anon_sym_with, ACTIONS 117), (anon_sym_def, ACTIONS 119), (anon_sym_fn, ACTIONS 119),
    (anon_sym_LBRACK, ACTIONS 59), (anon_sym_LBRACE, ACTIONS 61), (anon_sym_global, ACTIONS 63),
    (anon_sym_nonlocal, ACTIONS 65), (anon_sym_exec, ACTIONS 67), (anon_sym_type, ACTIONS 69),
    (anon_sym_class, ACTIONS 121), (anon_sym_struct, ACTIONS 121), (anon_sym_mut, ACTIONS 73),
    (anon_sym_out, ACTIONS 73), (anon_sym_trait, ACTIONS 123), (anon_sym_AT, ACTIONS 77),
    (anon_sym_DASH, ACTIONS 79), (anon_sym_PLUS, ACTIONS 79), (anon_sym_ref, ACTIONS 81),
    (anon_sym_var, ACTIONS 81), (anon_sym_not, ACTIONS 83), (anon_sym_TILDE, ACTIONS 79),
    (anon_sym_lambda, ACTIONS 85), (anon_sym_yield, ACTIONS 87), (sym_ellipsis, ACTIONS 89),
    (anon_sym___mlir_type, ACTIONS 91), (sym_integer, ACTIONS 93), (sym_float, ACTIONS 89),
    (anon_sym_await, ACTIONS 95), (sym_true, ACTIONS 93), (sym_false, ACTIONS 93),
    (sym_none, ACTIONS 93), (sym_comment, ACTIONS 3), (sym_line_continuation, ACTIONS 3),
    (sym__dedent, ACTIONS 125), (sym_string_start, ACTIONS 97)]"

definition parse_table_475 :: "(nat \<times> nat) list" where "parse_table_475 = [
    (sym__statement, STATE 927), (sym__simple_statements, STATE 927),
    (sym_import_statement, STATE 11814), (sym_future_import_statement, STATE 11814),
    (sym_import_from_statement, STATE 11814), (sym_print_statement, STATE 11814),
    (sym_assert_statement, STATE 11814), (sym_comptime_assert_statement, STATE 11814),
    (sym_expression_statement, STATE 11814), (sym_tuple_expression, STATE 12425),
    (sym_named_expression, STATE 7969), (sym__named_expression_lhs, STATE 12752),
    (sym_return_statement, STATE 11814), (sym_delete_statement, STATE 11814),
    (sym_raise_statement, STATE 11814), (sym_pass_statement, STATE 11814),
    (sym_break_statement, STATE 11814), (sym_continue_statement, STATE 11814),
    (sym_extension_definition, STATE 927), (sym_mlir_region, STATE 927),
    (sym_comptime_statement, STATE 927), (sym_if_statement, STATE 927),
    (sym_match_statement, STATE 927), (sym_for_statement, STATE 927),
    (sym_while_statement, STATE 927), (sym_try_statement, STATE 927),
    (sym_with_statement, STATE 927), (sym_function_definition, STATE 927),
    (sym_global_statement, STATE 11814), (sym_nonlocal_statement, STATE 11814),
    (sym_exec_statement, STATE 11814), (sym_type_alias_statement, STATE 11814),
    (sym_parameterized_alias_statement, STATE 11814), (sym_class_definition, STATE 927),
    (sym_trait_definition, STATE 927), (sym_decorated_definition, STATE 927),
    (sym_decorator, STATE 3670), (sym_block, STATE 4558), (sym_pattern, STATE 8086),
    (sym_tuple_pattern, STATE 8101), (sym_list_pattern, STATE 8101),
    (sym_list_splat_pattern, STATE 6819), (sym_as_pattern, STATE 7969),
    (sym_expression, STATE 9883), (sym_primary_expression, STATE 7326),
    (sym_comptime_expression, STATE 7017), (sym_transfer_expression, STATE 7017),
    (sym_not_operator, STATE 7969), (sym_boolean_operator, STATE 7969),
    (sym_binary_operator, STATE 7017), (sym_unary_operator, STATE 7017),
    (sym_comparison_operator, STATE 7969), (sym_lambda, STATE 7969),
    (sym_assignment, STATE 12425), (sym_augmented_assignment, STATE 12425),
    (sym_pattern_list, STATE 8578), (sym_yield, STATE 12425), (sym_attribute, STATE 6836),
    (sym_subscript, STATE 6838), (sym_call, STATE 6845), (sym_mlir_type, STATE 7017),
    (sym_list, STATE 7017), (sym_set, STATE 7017), (sym_tuple, STATE 7017),
    (sym_dictionary, STATE 7017), (sym_struct_literal, STATE 7017),
    (sym_list_comprehension, STATE 7017), (sym_dictionary_comprehension, STATE 7017),
    (sym_set_comprehension, STATE 7017), (sym_generator_expression, STATE 7017),
    (sym_parenthesized_expression, STATE 7017), (sym_conditional_expression, STATE 7969),
    (sym_concatenated_string, STATE 7017), (sym_string, STATE 6751), (sym_await, STATE 7017),
    (aux_sym_module_repeat1, STATE 927), (aux_sym_decorated_definition_repeat1, STATE 3670),
    (sym_identifier, ACTIONS 9), (anon_sym_import, ACTIONS 11), (anon_sym_from, ACTIONS 13),
    (anon_sym_LPAREN, ACTIONS 15), (anon_sym_STAR, ACTIONS 17), (anon_sym_print, ACTIONS 19),
    (anon_sym_comptime, ACTIONS 99), (anon_sym_assert, ACTIONS 23),
    (anon_sym___comptime_assert, ACTIONS 25), (anon_sym_return, ACTIONS 27),
    (anon_sym_del, ACTIONS 29), (anon_sym_raise, ACTIONS 31), (anon_sym_pass, ACTIONS 33),
    (anon_sym_break, ACTIONS 35), (anon_sym_continue, ACTIONS 37),
    (anon_sym___extension, ACTIONS 101), (anon_sym___mlir_region, ACTIONS 103),
    (anon_sym_if, ACTIONS 105), (anon_sym_match, ACTIONS 107), (anon_sym_async, ACTIONS 109),
    (anon_sym_for, ACTIONS 111), (anon_sym_while, ACTIONS 113), (anon_sym_try, ACTIONS 115),
    (anon_sym_with, ACTIONS 117), (anon_sym_def, ACTIONS 119), (anon_sym_fn, ACTIONS 119),
    (anon_sym_LBRACK, ACTIONS 59), (anon_sym_LBRACE, ACTIONS 61), (anon_sym_global, ACTIONS 63),
    (anon_sym_nonlocal, ACTIONS 65), (anon_sym_exec, ACTIONS 67), (anon_sym_type, ACTIONS 69),
    (anon_sym_class, ACTIONS 121), (anon_sym_struct, ACTIONS 121), (anon_sym_mut, ACTIONS 73),
    (anon_sym_out, ACTIONS 73), (anon_sym_trait, ACTIONS 123), (anon_sym_AT, ACTIONS 77),
    (anon_sym_DASH, ACTIONS 79), (anon_sym_PLUS, ACTIONS 79), (anon_sym_ref, ACTIONS 81),
    (anon_sym_var, ACTIONS 81), (anon_sym_not, ACTIONS 83), (anon_sym_TILDE, ACTIONS 79),
    (anon_sym_lambda, ACTIONS 85), (anon_sym_yield, ACTIONS 87), (sym_ellipsis, ACTIONS 89),
    (anon_sym___mlir_type, ACTIONS 91), (sym_integer, ACTIONS 93), (sym_float, ACTIONS 89),
    (anon_sym_await, ACTIONS 95), (sym_true, ACTIONS 93), (sym_false, ACTIONS 93),
    (sym_none, ACTIONS 93), (sym_comment, ACTIONS 3), (sym_line_continuation, ACTIONS 3),
    (sym__dedent, ACTIONS 125), (sym_string_start, ACTIONS 97)]"

definition parse_table_476 :: "(nat \<times> nat) list" where "parse_table_476 = [
    (sym__statement, STATE 927), (sym__simple_statements, STATE 927),
    (sym_import_statement, STATE 11814), (sym_future_import_statement, STATE 11814),
    (sym_import_from_statement, STATE 11814), (sym_print_statement, STATE 11814),
    (sym_assert_statement, STATE 11814), (sym_comptime_assert_statement, STATE 11814),
    (sym_expression_statement, STATE 11814), (sym_tuple_expression, STATE 12425),
    (sym_named_expression, STATE 7969), (sym__named_expression_lhs, STATE 12752),
    (sym_return_statement, STATE 11814), (sym_delete_statement, STATE 11814),
    (sym_raise_statement, STATE 11814), (sym_pass_statement, STATE 11814),
    (sym_break_statement, STATE 11814), (sym_continue_statement, STATE 11814),
    (sym_extension_definition, STATE 927), (sym_mlir_region, STATE 927),
    (sym_comptime_statement, STATE 927), (sym_if_statement, STATE 927),
    (sym_match_statement, STATE 927), (sym_for_statement, STATE 927),
    (sym_while_statement, STATE 927), (sym_try_statement, STATE 927),
    (sym_with_statement, STATE 927), (sym_function_definition, STATE 927),
    (sym_global_statement, STATE 11814), (sym_nonlocal_statement, STATE 11814),
    (sym_exec_statement, STATE 11814), (sym_type_alias_statement, STATE 11814),
    (sym_parameterized_alias_statement, STATE 11814), (sym_class_definition, STATE 927),
    (sym_trait_definition, STATE 927), (sym_decorated_definition, STATE 927),
    (sym_decorator, STATE 3670), (sym_block, STATE 4561), (sym_pattern, STATE 8086),
    (sym_tuple_pattern, STATE 8101), (sym_list_pattern, STATE 8101),
    (sym_list_splat_pattern, STATE 6819), (sym_as_pattern, STATE 7969),
    (sym_expression, STATE 9883), (sym_primary_expression, STATE 7326),
    (sym_comptime_expression, STATE 7017), (sym_transfer_expression, STATE 7017),
    (sym_not_operator, STATE 7969), (sym_boolean_operator, STATE 7969),
    (sym_binary_operator, STATE 7017), (sym_unary_operator, STATE 7017),
    (sym_comparison_operator, STATE 7969), (sym_lambda, STATE 7969),
    (sym_assignment, STATE 12425), (sym_augmented_assignment, STATE 12425),
    (sym_pattern_list, STATE 8578), (sym_yield, STATE 12425), (sym_attribute, STATE 6836),
    (sym_subscript, STATE 6838), (sym_call, STATE 6845), (sym_mlir_type, STATE 7017),
    (sym_list, STATE 7017), (sym_set, STATE 7017), (sym_tuple, STATE 7017),
    (sym_dictionary, STATE 7017), (sym_struct_literal, STATE 7017),
    (sym_list_comprehension, STATE 7017), (sym_dictionary_comprehension, STATE 7017),
    (sym_set_comprehension, STATE 7017), (sym_generator_expression, STATE 7017),
    (sym_parenthesized_expression, STATE 7017), (sym_conditional_expression, STATE 7969),
    (sym_concatenated_string, STATE 7017), (sym_string, STATE 6751), (sym_await, STATE 7017),
    (aux_sym_module_repeat1, STATE 927), (aux_sym_decorated_definition_repeat1, STATE 3670),
    (sym_identifier, ACTIONS 9), (anon_sym_import, ACTIONS 11), (anon_sym_from, ACTIONS 13),
    (anon_sym_LPAREN, ACTIONS 15), (anon_sym_STAR, ACTIONS 17), (anon_sym_print, ACTIONS 19),
    (anon_sym_comptime, ACTIONS 99), (anon_sym_assert, ACTIONS 23),
    (anon_sym___comptime_assert, ACTIONS 25), (anon_sym_return, ACTIONS 27),
    (anon_sym_del, ACTIONS 29), (anon_sym_raise, ACTIONS 31), (anon_sym_pass, ACTIONS 33),
    (anon_sym_break, ACTIONS 35), (anon_sym_continue, ACTIONS 37),
    (anon_sym___extension, ACTIONS 101), (anon_sym___mlir_region, ACTIONS 103),
    (anon_sym_if, ACTIONS 105), (anon_sym_match, ACTIONS 107), (anon_sym_async, ACTIONS 109),
    (anon_sym_for, ACTIONS 111), (anon_sym_while, ACTIONS 113), (anon_sym_try, ACTIONS 115),
    (anon_sym_with, ACTIONS 117), (anon_sym_def, ACTIONS 119), (anon_sym_fn, ACTIONS 119),
    (anon_sym_LBRACK, ACTIONS 59), (anon_sym_LBRACE, ACTIONS 61), (anon_sym_global, ACTIONS 63),
    (anon_sym_nonlocal, ACTIONS 65), (anon_sym_exec, ACTIONS 67), (anon_sym_type, ACTIONS 69),
    (anon_sym_class, ACTIONS 121), (anon_sym_struct, ACTIONS 121), (anon_sym_mut, ACTIONS 73),
    (anon_sym_out, ACTIONS 73), (anon_sym_trait, ACTIONS 123), (anon_sym_AT, ACTIONS 77),
    (anon_sym_DASH, ACTIONS 79), (anon_sym_PLUS, ACTIONS 79), (anon_sym_ref, ACTIONS 81),
    (anon_sym_var, ACTIONS 81), (anon_sym_not, ACTIONS 83), (anon_sym_TILDE, ACTIONS 79),
    (anon_sym_lambda, ACTIONS 85), (anon_sym_yield, ACTIONS 87), (sym_ellipsis, ACTIONS 89),
    (anon_sym___mlir_type, ACTIONS 91), (sym_integer, ACTIONS 93), (sym_float, ACTIONS 89),
    (anon_sym_await, ACTIONS 95), (sym_true, ACTIONS 93), (sym_false, ACTIONS 93),
    (sym_none, ACTIONS 93), (sym_comment, ACTIONS 3), (sym_line_continuation, ACTIONS 3),
    (sym__dedent, ACTIONS 125), (sym_string_start, ACTIONS 97)]"

definition parse_table_477 :: "(nat \<times> nat) list" where "parse_table_477 = [
    (sym__statement, STATE 927), (sym__simple_statements, STATE 927),
    (sym_import_statement, STATE 11814), (sym_future_import_statement, STATE 11814),
    (sym_import_from_statement, STATE 11814), (sym_print_statement, STATE 11814),
    (sym_assert_statement, STATE 11814), (sym_comptime_assert_statement, STATE 11814),
    (sym_expression_statement, STATE 11814), (sym_tuple_expression, STATE 12425),
    (sym_named_expression, STATE 7969), (sym__named_expression_lhs, STATE 12752),
    (sym_return_statement, STATE 11814), (sym_delete_statement, STATE 11814),
    (sym_raise_statement, STATE 11814), (sym_pass_statement, STATE 11814),
    (sym_break_statement, STATE 11814), (sym_continue_statement, STATE 11814),
    (sym_extension_definition, STATE 927), (sym_mlir_region, STATE 927),
    (sym_comptime_statement, STATE 927), (sym_if_statement, STATE 927),
    (sym_match_statement, STATE 927), (sym_for_statement, STATE 927),
    (sym_while_statement, STATE 927), (sym_try_statement, STATE 927),
    (sym_with_statement, STATE 927), (sym_function_definition, STATE 927),
    (sym_global_statement, STATE 11814), (sym_nonlocal_statement, STATE 11814),
    (sym_exec_statement, STATE 11814), (sym_type_alias_statement, STATE 11814),
    (sym_parameterized_alias_statement, STATE 11814), (sym_class_definition, STATE 927),
    (sym_trait_definition, STATE 927), (sym_decorated_definition, STATE 927),
    (sym_decorator, STATE 3670), (sym_block, STATE 4569), (sym_pattern, STATE 8086),
    (sym_tuple_pattern, STATE 8101), (sym_list_pattern, STATE 8101),
    (sym_list_splat_pattern, STATE 6819), (sym_as_pattern, STATE 7969),
    (sym_expression, STATE 9883), (sym_primary_expression, STATE 7326),
    (sym_comptime_expression, STATE 7017), (sym_transfer_expression, STATE 7017),
    (sym_not_operator, STATE 7969), (sym_boolean_operator, STATE 7969),
    (sym_binary_operator, STATE 7017), (sym_unary_operator, STATE 7017),
    (sym_comparison_operator, STATE 7969), (sym_lambda, STATE 7969),
    (sym_assignment, STATE 12425), (sym_augmented_assignment, STATE 12425),
    (sym_pattern_list, STATE 8578), (sym_yield, STATE 12425), (sym_attribute, STATE 6836),
    (sym_subscript, STATE 6838), (sym_call, STATE 6845), (sym_mlir_type, STATE 7017),
    (sym_list, STATE 7017), (sym_set, STATE 7017), (sym_tuple, STATE 7017),
    (sym_dictionary, STATE 7017), (sym_struct_literal, STATE 7017),
    (sym_list_comprehension, STATE 7017), (sym_dictionary_comprehension, STATE 7017),
    (sym_set_comprehension, STATE 7017), (sym_generator_expression, STATE 7017),
    (sym_parenthesized_expression, STATE 7017), (sym_conditional_expression, STATE 7969),
    (sym_concatenated_string, STATE 7017), (sym_string, STATE 6751), (sym_await, STATE 7017),
    (aux_sym_module_repeat1, STATE 927), (aux_sym_decorated_definition_repeat1, STATE 3670),
    (sym_identifier, ACTIONS 9), (anon_sym_import, ACTIONS 11), (anon_sym_from, ACTIONS 13),
    (anon_sym_LPAREN, ACTIONS 15), (anon_sym_STAR, ACTIONS 17), (anon_sym_print, ACTIONS 19),
    (anon_sym_comptime, ACTIONS 99), (anon_sym_assert, ACTIONS 23),
    (anon_sym___comptime_assert, ACTIONS 25), (anon_sym_return, ACTIONS 27),
    (anon_sym_del, ACTIONS 29), (anon_sym_raise, ACTIONS 31), (anon_sym_pass, ACTIONS 33),
    (anon_sym_break, ACTIONS 35), (anon_sym_continue, ACTIONS 37),
    (anon_sym___extension, ACTIONS 101), (anon_sym___mlir_region, ACTIONS 103),
    (anon_sym_if, ACTIONS 105), (anon_sym_match, ACTIONS 107), (anon_sym_async, ACTIONS 109),
    (anon_sym_for, ACTIONS 111), (anon_sym_while, ACTIONS 113), (anon_sym_try, ACTIONS 115),
    (anon_sym_with, ACTIONS 117), (anon_sym_def, ACTIONS 119), (anon_sym_fn, ACTIONS 119),
    (anon_sym_LBRACK, ACTIONS 59), (anon_sym_LBRACE, ACTIONS 61), (anon_sym_global, ACTIONS 63),
    (anon_sym_nonlocal, ACTIONS 65), (anon_sym_exec, ACTIONS 67), (anon_sym_type, ACTIONS 69),
    (anon_sym_class, ACTIONS 121), (anon_sym_struct, ACTIONS 121), (anon_sym_mut, ACTIONS 73),
    (anon_sym_out, ACTIONS 73), (anon_sym_trait, ACTIONS 123), (anon_sym_AT, ACTIONS 77),
    (anon_sym_DASH, ACTIONS 79), (anon_sym_PLUS, ACTIONS 79), (anon_sym_ref, ACTIONS 81),
    (anon_sym_var, ACTIONS 81), (anon_sym_not, ACTIONS 83), (anon_sym_TILDE, ACTIONS 79),
    (anon_sym_lambda, ACTIONS 85), (anon_sym_yield, ACTIONS 87), (sym_ellipsis, ACTIONS 89),
    (anon_sym___mlir_type, ACTIONS 91), (sym_integer, ACTIONS 93), (sym_float, ACTIONS 89),
    (anon_sym_await, ACTIONS 95), (sym_true, ACTIONS 93), (sym_false, ACTIONS 93),
    (sym_none, ACTIONS 93), (sym_comment, ACTIONS 3), (sym_line_continuation, ACTIONS 3),
    (sym__dedent, ACTIONS 125), (sym_string_start, ACTIONS 97)]"

definition parse_table_478 :: "(nat \<times> nat) list" where "parse_table_478 = [
    (sym__statement, STATE 927), (sym__simple_statements, STATE 927),
    (sym_import_statement, STATE 11814), (sym_future_import_statement, STATE 11814),
    (sym_import_from_statement, STATE 11814), (sym_print_statement, STATE 11814),
    (sym_assert_statement, STATE 11814), (sym_comptime_assert_statement, STATE 11814),
    (sym_expression_statement, STATE 11814), (sym_tuple_expression, STATE 12425),
    (sym_named_expression, STATE 7969), (sym__named_expression_lhs, STATE 12752),
    (sym_return_statement, STATE 11814), (sym_delete_statement, STATE 11814),
    (sym_raise_statement, STATE 11814), (sym_pass_statement, STATE 11814),
    (sym_break_statement, STATE 11814), (sym_continue_statement, STATE 11814),
    (sym_extension_definition, STATE 927), (sym_mlir_region, STATE 927),
    (sym_comptime_statement, STATE 927), (sym_if_statement, STATE 927),
    (sym_match_statement, STATE 927), (sym_for_statement, STATE 927),
    (sym_while_statement, STATE 927), (sym_try_statement, STATE 927),
    (sym_with_statement, STATE 927), (sym_function_definition, STATE 927),
    (sym_global_statement, STATE 11814), (sym_nonlocal_statement, STATE 11814),
    (sym_exec_statement, STATE 11814), (sym_type_alias_statement, STATE 11814),
    (sym_parameterized_alias_statement, STATE 11814), (sym_class_definition, STATE 927),
    (sym_trait_definition, STATE 927), (sym_decorated_definition, STATE 927),
    (sym_decorator, STATE 3670), (sym_block, STATE 4302), (sym_pattern, STATE 8086),
    (sym_tuple_pattern, STATE 8101), (sym_list_pattern, STATE 8101),
    (sym_list_splat_pattern, STATE 6819), (sym_as_pattern, STATE 7969),
    (sym_expression, STATE 9883), (sym_primary_expression, STATE 7326),
    (sym_comptime_expression, STATE 7017), (sym_transfer_expression, STATE 7017),
    (sym_not_operator, STATE 7969), (sym_boolean_operator, STATE 7969),
    (sym_binary_operator, STATE 7017), (sym_unary_operator, STATE 7017),
    (sym_comparison_operator, STATE 7969), (sym_lambda, STATE 7969),
    (sym_assignment, STATE 12425), (sym_augmented_assignment, STATE 12425),
    (sym_pattern_list, STATE 8578), (sym_yield, STATE 12425), (sym_attribute, STATE 6836),
    (sym_subscript, STATE 6838), (sym_call, STATE 6845), (sym_mlir_type, STATE 7017),
    (sym_list, STATE 7017), (sym_set, STATE 7017), (sym_tuple, STATE 7017),
    (sym_dictionary, STATE 7017), (sym_struct_literal, STATE 7017),
    (sym_list_comprehension, STATE 7017), (sym_dictionary_comprehension, STATE 7017),
    (sym_set_comprehension, STATE 7017), (sym_generator_expression, STATE 7017),
    (sym_parenthesized_expression, STATE 7017), (sym_conditional_expression, STATE 7969),
    (sym_concatenated_string, STATE 7017), (sym_string, STATE 6751), (sym_await, STATE 7017),
    (aux_sym_module_repeat1, STATE 927), (aux_sym_decorated_definition_repeat1, STATE 3670),
    (sym_identifier, ACTIONS 9), (anon_sym_import, ACTIONS 11), (anon_sym_from, ACTIONS 13),
    (anon_sym_LPAREN, ACTIONS 15), (anon_sym_STAR, ACTIONS 17), (anon_sym_print, ACTIONS 19),
    (anon_sym_comptime, ACTIONS 99), (anon_sym_assert, ACTIONS 23),
    (anon_sym___comptime_assert, ACTIONS 25), (anon_sym_return, ACTIONS 27),
    (anon_sym_del, ACTIONS 29), (anon_sym_raise, ACTIONS 31), (anon_sym_pass, ACTIONS 33),
    (anon_sym_break, ACTIONS 35), (anon_sym_continue, ACTIONS 37),
    (anon_sym___extension, ACTIONS 101), (anon_sym___mlir_region, ACTIONS 103),
    (anon_sym_if, ACTIONS 105), (anon_sym_match, ACTIONS 107), (anon_sym_async, ACTIONS 109),
    (anon_sym_for, ACTIONS 111), (anon_sym_while, ACTIONS 113), (anon_sym_try, ACTIONS 115),
    (anon_sym_with, ACTIONS 117), (anon_sym_def, ACTIONS 119), (anon_sym_fn, ACTIONS 119),
    (anon_sym_LBRACK, ACTIONS 59), (anon_sym_LBRACE, ACTIONS 61), (anon_sym_global, ACTIONS 63),
    (anon_sym_nonlocal, ACTIONS 65), (anon_sym_exec, ACTIONS 67), (anon_sym_type, ACTIONS 69),
    (anon_sym_class, ACTIONS 121), (anon_sym_struct, ACTIONS 121), (anon_sym_mut, ACTIONS 73),
    (anon_sym_out, ACTIONS 73), (anon_sym_trait, ACTIONS 123), (anon_sym_AT, ACTIONS 77),
    (anon_sym_DASH, ACTIONS 79), (anon_sym_PLUS, ACTIONS 79), (anon_sym_ref, ACTIONS 81),
    (anon_sym_var, ACTIONS 81), (anon_sym_not, ACTIONS 83), (anon_sym_TILDE, ACTIONS 79),
    (anon_sym_lambda, ACTIONS 85), (anon_sym_yield, ACTIONS 87), (sym_ellipsis, ACTIONS 89),
    (anon_sym___mlir_type, ACTIONS 91), (sym_integer, ACTIONS 93), (sym_float, ACTIONS 89),
    (anon_sym_await, ACTIONS 95), (sym_true, ACTIONS 93), (sym_false, ACTIONS 93),
    (sym_none, ACTIONS 93), (sym_comment, ACTIONS 3), (sym_line_continuation, ACTIONS 3),
    (sym__dedent, ACTIONS 125), (sym_string_start, ACTIONS 97)]"

definition parse_table_479 :: "(nat \<times> nat) list" where "parse_table_479 = [
    (sym__statement, STATE 927), (sym__simple_statements, STATE 927),
    (sym_import_statement, STATE 11814), (sym_future_import_statement, STATE 11814),
    (sym_import_from_statement, STATE 11814), (sym_print_statement, STATE 11814),
    (sym_assert_statement, STATE 11814), (sym_comptime_assert_statement, STATE 11814),
    (sym_expression_statement, STATE 11814), (sym_tuple_expression, STATE 12425),
    (sym_named_expression, STATE 7969), (sym__named_expression_lhs, STATE 12752),
    (sym_return_statement, STATE 11814), (sym_delete_statement, STATE 11814),
    (sym_raise_statement, STATE 11814), (sym_pass_statement, STATE 11814),
    (sym_break_statement, STATE 11814), (sym_continue_statement, STATE 11814),
    (sym_extension_definition, STATE 927), (sym_mlir_region, STATE 927),
    (sym_comptime_statement, STATE 927), (sym_if_statement, STATE 927),
    (sym_match_statement, STATE 927), (sym_for_statement, STATE 927),
    (sym_while_statement, STATE 927), (sym_try_statement, STATE 927),
    (sym_with_statement, STATE 927), (sym_function_definition, STATE 927),
    (sym_global_statement, STATE 11814), (sym_nonlocal_statement, STATE 11814),
    (sym_exec_statement, STATE 11814), (sym_type_alias_statement, STATE 11814),
    (sym_parameterized_alias_statement, STATE 11814), (sym_class_definition, STATE 927),
    (sym_trait_definition, STATE 927), (sym_decorated_definition, STATE 927),
    (sym_decorator, STATE 3670), (sym_block, STATE 4191), (sym_pattern, STATE 8086),
    (sym_tuple_pattern, STATE 8101), (sym_list_pattern, STATE 8101),
    (sym_list_splat_pattern, STATE 6819), (sym_as_pattern, STATE 7969),
    (sym_expression, STATE 9883), (sym_primary_expression, STATE 7326),
    (sym_comptime_expression, STATE 7017), (sym_transfer_expression, STATE 7017),
    (sym_not_operator, STATE 7969), (sym_boolean_operator, STATE 7969),
    (sym_binary_operator, STATE 7017), (sym_unary_operator, STATE 7017),
    (sym_comparison_operator, STATE 7969), (sym_lambda, STATE 7969),
    (sym_assignment, STATE 12425), (sym_augmented_assignment, STATE 12425),
    (sym_pattern_list, STATE 8578), (sym_yield, STATE 12425), (sym_attribute, STATE 6836),
    (sym_subscript, STATE 6838), (sym_call, STATE 6845), (sym_mlir_type, STATE 7017),
    (sym_list, STATE 7017), (sym_set, STATE 7017), (sym_tuple, STATE 7017),
    (sym_dictionary, STATE 7017), (sym_struct_literal, STATE 7017),
    (sym_list_comprehension, STATE 7017), (sym_dictionary_comprehension, STATE 7017),
    (sym_set_comprehension, STATE 7017), (sym_generator_expression, STATE 7017),
    (sym_parenthesized_expression, STATE 7017), (sym_conditional_expression, STATE 7969),
    (sym_concatenated_string, STATE 7017), (sym_string, STATE 6751), (sym_await, STATE 7017),
    (aux_sym_module_repeat1, STATE 927), (aux_sym_decorated_definition_repeat1, STATE 3670),
    (sym_identifier, ACTIONS 9), (anon_sym_import, ACTIONS 11), (anon_sym_from, ACTIONS 13),
    (anon_sym_LPAREN, ACTIONS 15), (anon_sym_STAR, ACTIONS 17), (anon_sym_print, ACTIONS 19),
    (anon_sym_comptime, ACTIONS 99), (anon_sym_assert, ACTIONS 23),
    (anon_sym___comptime_assert, ACTIONS 25), (anon_sym_return, ACTIONS 27),
    (anon_sym_del, ACTIONS 29), (anon_sym_raise, ACTIONS 31), (anon_sym_pass, ACTIONS 33),
    (anon_sym_break, ACTIONS 35), (anon_sym_continue, ACTIONS 37),
    (anon_sym___extension, ACTIONS 101), (anon_sym___mlir_region, ACTIONS 103),
    (anon_sym_if, ACTIONS 105), (anon_sym_match, ACTIONS 107), (anon_sym_async, ACTIONS 109),
    (anon_sym_for, ACTIONS 111), (anon_sym_while, ACTIONS 113), (anon_sym_try, ACTIONS 115),
    (anon_sym_with, ACTIONS 117), (anon_sym_def, ACTIONS 119), (anon_sym_fn, ACTIONS 119),
    (anon_sym_LBRACK, ACTIONS 59), (anon_sym_LBRACE, ACTIONS 61), (anon_sym_global, ACTIONS 63),
    (anon_sym_nonlocal, ACTIONS 65), (anon_sym_exec, ACTIONS 67), (anon_sym_type, ACTIONS 69),
    (anon_sym_class, ACTIONS 121), (anon_sym_struct, ACTIONS 121), (anon_sym_mut, ACTIONS 73),
    (anon_sym_out, ACTIONS 73), (anon_sym_trait, ACTIONS 123), (anon_sym_AT, ACTIONS 77),
    (anon_sym_DASH, ACTIONS 79), (anon_sym_PLUS, ACTIONS 79), (anon_sym_ref, ACTIONS 81),
    (anon_sym_var, ACTIONS 81), (anon_sym_not, ACTIONS 83), (anon_sym_TILDE, ACTIONS 79),
    (anon_sym_lambda, ACTIONS 85), (anon_sym_yield, ACTIONS 87), (sym_ellipsis, ACTIONS 89),
    (anon_sym___mlir_type, ACTIONS 91), (sym_integer, ACTIONS 93), (sym_float, ACTIONS 89),
    (anon_sym_await, ACTIONS 95), (sym_true, ACTIONS 93), (sym_false, ACTIONS 93),
    (sym_none, ACTIONS 93), (sym_comment, ACTIONS 3), (sym_line_continuation, ACTIONS 3),
    (sym__dedent, ACTIONS 125), (sym_string_start, ACTIONS 97)]"

definition parse_table_480 :: "(nat \<times> nat) list" where "parse_table_480 = [
    (sym__statement, STATE 927), (sym__simple_statements, STATE 927),
    (sym_import_statement, STATE 11814), (sym_future_import_statement, STATE 11814),
    (sym_import_from_statement, STATE 11814), (sym_print_statement, STATE 11814),
    (sym_assert_statement, STATE 11814), (sym_comptime_assert_statement, STATE 11814),
    (sym_expression_statement, STATE 11814), (sym_tuple_expression, STATE 12425),
    (sym_named_expression, STATE 7969), (sym__named_expression_lhs, STATE 12752),
    (sym_return_statement, STATE 11814), (sym_delete_statement, STATE 11814),
    (sym_raise_statement, STATE 11814), (sym_pass_statement, STATE 11814),
    (sym_break_statement, STATE 11814), (sym_continue_statement, STATE 11814),
    (sym_extension_definition, STATE 927), (sym_mlir_region, STATE 927),
    (sym_comptime_statement, STATE 927), (sym_if_statement, STATE 927),
    (sym_match_statement, STATE 927), (sym_for_statement, STATE 927),
    (sym_while_statement, STATE 927), (sym_try_statement, STATE 927),
    (sym_with_statement, STATE 927), (sym_function_definition, STATE 927),
    (sym_global_statement, STATE 11814), (sym_nonlocal_statement, STATE 11814),
    (sym_exec_statement, STATE 11814), (sym_type_alias_statement, STATE 11814),
    (sym_parameterized_alias_statement, STATE 11814), (sym_class_definition, STATE 927),
    (sym_trait_definition, STATE 927), (sym_decorated_definition, STATE 927),
    (sym_decorator, STATE 3670), (sym_block, STATE 4580), (sym_pattern, STATE 8086),
    (sym_tuple_pattern, STATE 8101), (sym_list_pattern, STATE 8101),
    (sym_list_splat_pattern, STATE 6819), (sym_as_pattern, STATE 7969),
    (sym_expression, STATE 9883), (sym_primary_expression, STATE 7326),
    (sym_comptime_expression, STATE 7017), (sym_transfer_expression, STATE 7017),
    (sym_not_operator, STATE 7969), (sym_boolean_operator, STATE 7969),
    (sym_binary_operator, STATE 7017), (sym_unary_operator, STATE 7017),
    (sym_comparison_operator, STATE 7969), (sym_lambda, STATE 7969),
    (sym_assignment, STATE 12425), (sym_augmented_assignment, STATE 12425),
    (sym_pattern_list, STATE 8578), (sym_yield, STATE 12425), (sym_attribute, STATE 6836),
    (sym_subscript, STATE 6838), (sym_call, STATE 6845), (sym_mlir_type, STATE 7017),
    (sym_list, STATE 7017), (sym_set, STATE 7017), (sym_tuple, STATE 7017),
    (sym_dictionary, STATE 7017), (sym_struct_literal, STATE 7017),
    (sym_list_comprehension, STATE 7017), (sym_dictionary_comprehension, STATE 7017),
    (sym_set_comprehension, STATE 7017), (sym_generator_expression, STATE 7017),
    (sym_parenthesized_expression, STATE 7017), (sym_conditional_expression, STATE 7969),
    (sym_concatenated_string, STATE 7017), (sym_string, STATE 6751), (sym_await, STATE 7017),
    (aux_sym_module_repeat1, STATE 927), (aux_sym_decorated_definition_repeat1, STATE 3670),
    (sym_identifier, ACTIONS 9), (anon_sym_import, ACTIONS 11), (anon_sym_from, ACTIONS 13),
    (anon_sym_LPAREN, ACTIONS 15), (anon_sym_STAR, ACTIONS 17), (anon_sym_print, ACTIONS 19),
    (anon_sym_comptime, ACTIONS 99), (anon_sym_assert, ACTIONS 23),
    (anon_sym___comptime_assert, ACTIONS 25), (anon_sym_return, ACTIONS 27),
    (anon_sym_del, ACTIONS 29), (anon_sym_raise, ACTIONS 31), (anon_sym_pass, ACTIONS 33),
    (anon_sym_break, ACTIONS 35), (anon_sym_continue, ACTIONS 37),
    (anon_sym___extension, ACTIONS 101), (anon_sym___mlir_region, ACTIONS 103),
    (anon_sym_if, ACTIONS 105), (anon_sym_match, ACTIONS 107), (anon_sym_async, ACTIONS 109),
    (anon_sym_for, ACTIONS 111), (anon_sym_while, ACTIONS 113), (anon_sym_try, ACTIONS 115),
    (anon_sym_with, ACTIONS 117), (anon_sym_def, ACTIONS 119), (anon_sym_fn, ACTIONS 119),
    (anon_sym_LBRACK, ACTIONS 59), (anon_sym_LBRACE, ACTIONS 61), (anon_sym_global, ACTIONS 63),
    (anon_sym_nonlocal, ACTIONS 65), (anon_sym_exec, ACTIONS 67), (anon_sym_type, ACTIONS 69),
    (anon_sym_class, ACTIONS 121), (anon_sym_struct, ACTIONS 121), (anon_sym_mut, ACTIONS 73),
    (anon_sym_out, ACTIONS 73), (anon_sym_trait, ACTIONS 123), (anon_sym_AT, ACTIONS 77),
    (anon_sym_DASH, ACTIONS 79), (anon_sym_PLUS, ACTIONS 79), (anon_sym_ref, ACTIONS 81),
    (anon_sym_var, ACTIONS 81), (anon_sym_not, ACTIONS 83), (anon_sym_TILDE, ACTIONS 79),
    (anon_sym_lambda, ACTIONS 85), (anon_sym_yield, ACTIONS 87), (sym_ellipsis, ACTIONS 89),
    (anon_sym___mlir_type, ACTIONS 91), (sym_integer, ACTIONS 93), (sym_float, ACTIONS 89),
    (anon_sym_await, ACTIONS 95), (sym_true, ACTIONS 93), (sym_false, ACTIONS 93),
    (sym_none, ACTIONS 93), (sym_comment, ACTIONS 3), (sym_line_continuation, ACTIONS 3),
    (sym__dedent, ACTIONS 125), (sym_string_start, ACTIONS 97)]"

definition parse_table_481 :: "(nat \<times> nat) list" where "parse_table_481 = [
    (sym__statement, STATE 927), (sym__simple_statements, STATE 927),
    (sym_import_statement, STATE 11814), (sym_future_import_statement, STATE 11814),
    (sym_import_from_statement, STATE 11814), (sym_print_statement, STATE 11814),
    (sym_assert_statement, STATE 11814), (sym_comptime_assert_statement, STATE 11814),
    (sym_expression_statement, STATE 11814), (sym_tuple_expression, STATE 12425),
    (sym_named_expression, STATE 7969), (sym__named_expression_lhs, STATE 12752),
    (sym_return_statement, STATE 11814), (sym_delete_statement, STATE 11814),
    (sym_raise_statement, STATE 11814), (sym_pass_statement, STATE 11814),
    (sym_break_statement, STATE 11814), (sym_continue_statement, STATE 11814),
    (sym_extension_definition, STATE 927), (sym_mlir_region, STATE 927),
    (sym_comptime_statement, STATE 927), (sym_if_statement, STATE 927),
    (sym_match_statement, STATE 927), (sym_for_statement, STATE 927),
    (sym_while_statement, STATE 927), (sym_try_statement, STATE 927),
    (sym_with_statement, STATE 927), (sym_function_definition, STATE 927),
    (sym_global_statement, STATE 11814), (sym_nonlocal_statement, STATE 11814),
    (sym_exec_statement, STATE 11814), (sym_type_alias_statement, STATE 11814),
    (sym_parameterized_alias_statement, STATE 11814), (sym_class_definition, STATE 927),
    (sym_trait_definition, STATE 927), (sym_decorated_definition, STATE 927),
    (sym_decorator, STATE 3670), (sym_block, STATE 4584), (sym_pattern, STATE 8086),
    (sym_tuple_pattern, STATE 8101), (sym_list_pattern, STATE 8101),
    (sym_list_splat_pattern, STATE 6819), (sym_as_pattern, STATE 7969),
    (sym_expression, STATE 9883), (sym_primary_expression, STATE 7326),
    (sym_comptime_expression, STATE 7017), (sym_transfer_expression, STATE 7017),
    (sym_not_operator, STATE 7969), (sym_boolean_operator, STATE 7969),
    (sym_binary_operator, STATE 7017), (sym_unary_operator, STATE 7017),
    (sym_comparison_operator, STATE 7969), (sym_lambda, STATE 7969),
    (sym_assignment, STATE 12425), (sym_augmented_assignment, STATE 12425),
    (sym_pattern_list, STATE 8578), (sym_yield, STATE 12425), (sym_attribute, STATE 6836),
    (sym_subscript, STATE 6838), (sym_call, STATE 6845), (sym_mlir_type, STATE 7017),
    (sym_list, STATE 7017), (sym_set, STATE 7017), (sym_tuple, STATE 7017),
    (sym_dictionary, STATE 7017), (sym_struct_literal, STATE 7017),
    (sym_list_comprehension, STATE 7017), (sym_dictionary_comprehension, STATE 7017),
    (sym_set_comprehension, STATE 7017), (sym_generator_expression, STATE 7017),
    (sym_parenthesized_expression, STATE 7017), (sym_conditional_expression, STATE 7969),
    (sym_concatenated_string, STATE 7017), (sym_string, STATE 6751), (sym_await, STATE 7017),
    (aux_sym_module_repeat1, STATE 927), (aux_sym_decorated_definition_repeat1, STATE 3670),
    (sym_identifier, ACTIONS 9), (anon_sym_import, ACTIONS 11), (anon_sym_from, ACTIONS 13),
    (anon_sym_LPAREN, ACTIONS 15), (anon_sym_STAR, ACTIONS 17), (anon_sym_print, ACTIONS 19),
    (anon_sym_comptime, ACTIONS 99), (anon_sym_assert, ACTIONS 23),
    (anon_sym___comptime_assert, ACTIONS 25), (anon_sym_return, ACTIONS 27),
    (anon_sym_del, ACTIONS 29), (anon_sym_raise, ACTIONS 31), (anon_sym_pass, ACTIONS 33),
    (anon_sym_break, ACTIONS 35), (anon_sym_continue, ACTIONS 37),
    (anon_sym___extension, ACTIONS 101), (anon_sym___mlir_region, ACTIONS 103),
    (anon_sym_if, ACTIONS 105), (anon_sym_match, ACTIONS 107), (anon_sym_async, ACTIONS 109),
    (anon_sym_for, ACTIONS 111), (anon_sym_while, ACTIONS 113), (anon_sym_try, ACTIONS 115),
    (anon_sym_with, ACTIONS 117), (anon_sym_def, ACTIONS 119), (anon_sym_fn, ACTIONS 119),
    (anon_sym_LBRACK, ACTIONS 59), (anon_sym_LBRACE, ACTIONS 61), (anon_sym_global, ACTIONS 63),
    (anon_sym_nonlocal, ACTIONS 65), (anon_sym_exec, ACTIONS 67), (anon_sym_type, ACTIONS 69),
    (anon_sym_class, ACTIONS 121), (anon_sym_struct, ACTIONS 121), (anon_sym_mut, ACTIONS 73),
    (anon_sym_out, ACTIONS 73), (anon_sym_trait, ACTIONS 123), (anon_sym_AT, ACTIONS 77),
    (anon_sym_DASH, ACTIONS 79), (anon_sym_PLUS, ACTIONS 79), (anon_sym_ref, ACTIONS 81),
    (anon_sym_var, ACTIONS 81), (anon_sym_not, ACTIONS 83), (anon_sym_TILDE, ACTIONS 79),
    (anon_sym_lambda, ACTIONS 85), (anon_sym_yield, ACTIONS 87), (sym_ellipsis, ACTIONS 89),
    (anon_sym___mlir_type, ACTIONS 91), (sym_integer, ACTIONS 93), (sym_float, ACTIONS 89),
    (anon_sym_await, ACTIONS 95), (sym_true, ACTIONS 93), (sym_false, ACTIONS 93),
    (sym_none, ACTIONS 93), (sym_comment, ACTIONS 3), (sym_line_continuation, ACTIONS 3),
    (sym__dedent, ACTIONS 125), (sym_string_start, ACTIONS 97)]"

definition parse_table_482 :: "(nat \<times> nat) list" where "parse_table_482 = [
    (sym__statement, STATE 927), (sym__simple_statements, STATE 927),
    (sym_import_statement, STATE 11814), (sym_future_import_statement, STATE 11814),
    (sym_import_from_statement, STATE 11814), (sym_print_statement, STATE 11814),
    (sym_assert_statement, STATE 11814), (sym_comptime_assert_statement, STATE 11814),
    (sym_expression_statement, STATE 11814), (sym_tuple_expression, STATE 12425),
    (sym_named_expression, STATE 7969), (sym__named_expression_lhs, STATE 12752),
    (sym_return_statement, STATE 11814), (sym_delete_statement, STATE 11814),
    (sym_raise_statement, STATE 11814), (sym_pass_statement, STATE 11814),
    (sym_break_statement, STATE 11814), (sym_continue_statement, STATE 11814),
    (sym_extension_definition, STATE 927), (sym_mlir_region, STATE 927),
    (sym_comptime_statement, STATE 927), (sym_if_statement, STATE 927),
    (sym_match_statement, STATE 927), (sym_for_statement, STATE 927),
    (sym_while_statement, STATE 927), (sym_try_statement, STATE 927),
    (sym_with_statement, STATE 927), (sym_function_definition, STATE 927),
    (sym_global_statement, STATE 11814), (sym_nonlocal_statement, STATE 11814),
    (sym_exec_statement, STATE 11814), (sym_type_alias_statement, STATE 11814),
    (sym_parameterized_alias_statement, STATE 11814), (sym_class_definition, STATE 927),
    (sym_trait_definition, STATE 927), (sym_decorated_definition, STATE 927),
    (sym_decorator, STATE 3670), (sym_block, STATE 4587), (sym_pattern, STATE 8086),
    (sym_tuple_pattern, STATE 8101), (sym_list_pattern, STATE 8101),
    (sym_list_splat_pattern, STATE 6819), (sym_as_pattern, STATE 7969),
    (sym_expression, STATE 9883), (sym_primary_expression, STATE 7326),
    (sym_comptime_expression, STATE 7017), (sym_transfer_expression, STATE 7017),
    (sym_not_operator, STATE 7969), (sym_boolean_operator, STATE 7969),
    (sym_binary_operator, STATE 7017), (sym_unary_operator, STATE 7017),
    (sym_comparison_operator, STATE 7969), (sym_lambda, STATE 7969),
    (sym_assignment, STATE 12425), (sym_augmented_assignment, STATE 12425),
    (sym_pattern_list, STATE 8578), (sym_yield, STATE 12425), (sym_attribute, STATE 6836),
    (sym_subscript, STATE 6838), (sym_call, STATE 6845), (sym_mlir_type, STATE 7017),
    (sym_list, STATE 7017), (sym_set, STATE 7017), (sym_tuple, STATE 7017),
    (sym_dictionary, STATE 7017), (sym_struct_literal, STATE 7017),
    (sym_list_comprehension, STATE 7017), (sym_dictionary_comprehension, STATE 7017),
    (sym_set_comprehension, STATE 7017), (sym_generator_expression, STATE 7017),
    (sym_parenthesized_expression, STATE 7017), (sym_conditional_expression, STATE 7969),
    (sym_concatenated_string, STATE 7017), (sym_string, STATE 6751), (sym_await, STATE 7017),
    (aux_sym_module_repeat1, STATE 927), (aux_sym_decorated_definition_repeat1, STATE 3670),
    (sym_identifier, ACTIONS 9), (anon_sym_import, ACTIONS 11), (anon_sym_from, ACTIONS 13),
    (anon_sym_LPAREN, ACTIONS 15), (anon_sym_STAR, ACTIONS 17), (anon_sym_print, ACTIONS 19),
    (anon_sym_comptime, ACTIONS 99), (anon_sym_assert, ACTIONS 23),
    (anon_sym___comptime_assert, ACTIONS 25), (anon_sym_return, ACTIONS 27),
    (anon_sym_del, ACTIONS 29), (anon_sym_raise, ACTIONS 31), (anon_sym_pass, ACTIONS 33),
    (anon_sym_break, ACTIONS 35), (anon_sym_continue, ACTIONS 37),
    (anon_sym___extension, ACTIONS 101), (anon_sym___mlir_region, ACTIONS 103),
    (anon_sym_if, ACTIONS 105), (anon_sym_match, ACTIONS 107), (anon_sym_async, ACTIONS 109),
    (anon_sym_for, ACTIONS 111), (anon_sym_while, ACTIONS 113), (anon_sym_try, ACTIONS 115),
    (anon_sym_with, ACTIONS 117), (anon_sym_def, ACTIONS 119), (anon_sym_fn, ACTIONS 119),
    (anon_sym_LBRACK, ACTIONS 59), (anon_sym_LBRACE, ACTIONS 61), (anon_sym_global, ACTIONS 63),
    (anon_sym_nonlocal, ACTIONS 65), (anon_sym_exec, ACTIONS 67), (anon_sym_type, ACTIONS 69),
    (anon_sym_class, ACTIONS 121), (anon_sym_struct, ACTIONS 121), (anon_sym_mut, ACTIONS 73),
    (anon_sym_out, ACTIONS 73), (anon_sym_trait, ACTIONS 123), (anon_sym_AT, ACTIONS 77),
    (anon_sym_DASH, ACTIONS 79), (anon_sym_PLUS, ACTIONS 79), (anon_sym_ref, ACTIONS 81),
    (anon_sym_var, ACTIONS 81), (anon_sym_not, ACTIONS 83), (anon_sym_TILDE, ACTIONS 79),
    (anon_sym_lambda, ACTIONS 85), (anon_sym_yield, ACTIONS 87), (sym_ellipsis, ACTIONS 89),
    (anon_sym___mlir_type, ACTIONS 91), (sym_integer, ACTIONS 93), (sym_float, ACTIONS 89),
    (anon_sym_await, ACTIONS 95), (sym_true, ACTIONS 93), (sym_false, ACTIONS 93),
    (sym_none, ACTIONS 93), (sym_comment, ACTIONS 3), (sym_line_continuation, ACTIONS 3),
    (sym__dedent, ACTIONS 125), (sym_string_start, ACTIONS 97)]"

definition parse_table_483 :: "(nat \<times> nat) list" where "parse_table_483 = [
    (sym__statement, STATE 927), (sym__simple_statements, STATE 927),
    (sym_import_statement, STATE 11814), (sym_future_import_statement, STATE 11814),
    (sym_import_from_statement, STATE 11814), (sym_print_statement, STATE 11814),
    (sym_assert_statement, STATE 11814), (sym_comptime_assert_statement, STATE 11814),
    (sym_expression_statement, STATE 11814), (sym_tuple_expression, STATE 12425),
    (sym_named_expression, STATE 7969), (sym__named_expression_lhs, STATE 12752),
    (sym_return_statement, STATE 11814), (sym_delete_statement, STATE 11814),
    (sym_raise_statement, STATE 11814), (sym_pass_statement, STATE 11814),
    (sym_break_statement, STATE 11814), (sym_continue_statement, STATE 11814),
    (sym_extension_definition, STATE 927), (sym_mlir_region, STATE 927),
    (sym_comptime_statement, STATE 927), (sym_if_statement, STATE 927),
    (sym_match_statement, STATE 927), (sym_for_statement, STATE 927),
    (sym_while_statement, STATE 927), (sym_try_statement, STATE 927),
    (sym_with_statement, STATE 927), (sym_function_definition, STATE 927),
    (sym_global_statement, STATE 11814), (sym_nonlocal_statement, STATE 11814),
    (sym_exec_statement, STATE 11814), (sym_type_alias_statement, STATE 11814),
    (sym_parameterized_alias_statement, STATE 11814), (sym_class_definition, STATE 927),
    (sym_trait_definition, STATE 927), (sym_decorated_definition, STATE 927),
    (sym_decorator, STATE 3670), (sym_block, STATE 4598), (sym_pattern, STATE 8086),
    (sym_tuple_pattern, STATE 8101), (sym_list_pattern, STATE 8101),
    (sym_list_splat_pattern, STATE 6819), (sym_as_pattern, STATE 7969),
    (sym_expression, STATE 9883), (sym_primary_expression, STATE 7326),
    (sym_comptime_expression, STATE 7017), (sym_transfer_expression, STATE 7017),
    (sym_not_operator, STATE 7969), (sym_boolean_operator, STATE 7969),
    (sym_binary_operator, STATE 7017), (sym_unary_operator, STATE 7017),
    (sym_comparison_operator, STATE 7969), (sym_lambda, STATE 7969),
    (sym_assignment, STATE 12425), (sym_augmented_assignment, STATE 12425),
    (sym_pattern_list, STATE 8578), (sym_yield, STATE 12425), (sym_attribute, STATE 6836),
    (sym_subscript, STATE 6838), (sym_call, STATE 6845), (sym_mlir_type, STATE 7017),
    (sym_list, STATE 7017), (sym_set, STATE 7017), (sym_tuple, STATE 7017),
    (sym_dictionary, STATE 7017), (sym_struct_literal, STATE 7017),
    (sym_list_comprehension, STATE 7017), (sym_dictionary_comprehension, STATE 7017),
    (sym_set_comprehension, STATE 7017), (sym_generator_expression, STATE 7017),
    (sym_parenthesized_expression, STATE 7017), (sym_conditional_expression, STATE 7969),
    (sym_concatenated_string, STATE 7017), (sym_string, STATE 6751), (sym_await, STATE 7017),
    (aux_sym_module_repeat1, STATE 927), (aux_sym_decorated_definition_repeat1, STATE 3670),
    (sym_identifier, ACTIONS 9), (anon_sym_import, ACTIONS 11), (anon_sym_from, ACTIONS 13),
    (anon_sym_LPAREN, ACTIONS 15), (anon_sym_STAR, ACTIONS 17), (anon_sym_print, ACTIONS 19),
    (anon_sym_comptime, ACTIONS 99), (anon_sym_assert, ACTIONS 23),
    (anon_sym___comptime_assert, ACTIONS 25), (anon_sym_return, ACTIONS 27),
    (anon_sym_del, ACTIONS 29), (anon_sym_raise, ACTIONS 31), (anon_sym_pass, ACTIONS 33),
    (anon_sym_break, ACTIONS 35), (anon_sym_continue, ACTIONS 37),
    (anon_sym___extension, ACTIONS 101), (anon_sym___mlir_region, ACTIONS 103),
    (anon_sym_if, ACTIONS 105), (anon_sym_match, ACTIONS 107), (anon_sym_async, ACTIONS 109),
    (anon_sym_for, ACTIONS 111), (anon_sym_while, ACTIONS 113), (anon_sym_try, ACTIONS 115),
    (anon_sym_with, ACTIONS 117), (anon_sym_def, ACTIONS 119), (anon_sym_fn, ACTIONS 119),
    (anon_sym_LBRACK, ACTIONS 59), (anon_sym_LBRACE, ACTIONS 61), (anon_sym_global, ACTIONS 63),
    (anon_sym_nonlocal, ACTIONS 65), (anon_sym_exec, ACTIONS 67), (anon_sym_type, ACTIONS 69),
    (anon_sym_class, ACTIONS 121), (anon_sym_struct, ACTIONS 121), (anon_sym_mut, ACTIONS 73),
    (anon_sym_out, ACTIONS 73), (anon_sym_trait, ACTIONS 123), (anon_sym_AT, ACTIONS 77),
    (anon_sym_DASH, ACTIONS 79), (anon_sym_PLUS, ACTIONS 79), (anon_sym_ref, ACTIONS 81),
    (anon_sym_var, ACTIONS 81), (anon_sym_not, ACTIONS 83), (anon_sym_TILDE, ACTIONS 79),
    (anon_sym_lambda, ACTIONS 85), (anon_sym_yield, ACTIONS 87), (sym_ellipsis, ACTIONS 89),
    (anon_sym___mlir_type, ACTIONS 91), (sym_integer, ACTIONS 93), (sym_float, ACTIONS 89),
    (anon_sym_await, ACTIONS 95), (sym_true, ACTIONS 93), (sym_false, ACTIONS 93),
    (sym_none, ACTIONS 93), (sym_comment, ACTIONS 3), (sym_line_continuation, ACTIONS 3),
    (sym__dedent, ACTIONS 125), (sym_string_start, ACTIONS 97)]"

definition parse_table_484 :: "(nat \<times> nat) list" where "parse_table_484 = [
    (sym__statement, STATE 927), (sym__simple_statements, STATE 927),
    (sym_import_statement, STATE 11814), (sym_future_import_statement, STATE 11814),
    (sym_import_from_statement, STATE 11814), (sym_print_statement, STATE 11814),
    (sym_assert_statement, STATE 11814), (sym_comptime_assert_statement, STATE 11814),
    (sym_expression_statement, STATE 11814), (sym_tuple_expression, STATE 12425),
    (sym_named_expression, STATE 7969), (sym__named_expression_lhs, STATE 12752),
    (sym_return_statement, STATE 11814), (sym_delete_statement, STATE 11814),
    (sym_raise_statement, STATE 11814), (sym_pass_statement, STATE 11814),
    (sym_break_statement, STATE 11814), (sym_continue_statement, STATE 11814),
    (sym_extension_definition, STATE 927), (sym_mlir_region, STATE 927),
    (sym_comptime_statement, STATE 927), (sym_if_statement, STATE 927),
    (sym_match_statement, STATE 927), (sym_for_statement, STATE 927),
    (sym_while_statement, STATE 927), (sym_try_statement, STATE 927),
    (sym_with_statement, STATE 927), (sym_function_definition, STATE 927),
    (sym_global_statement, STATE 11814), (sym_nonlocal_statement, STATE 11814),
    (sym_exec_statement, STATE 11814), (sym_type_alias_statement, STATE 11814),
    (sym_parameterized_alias_statement, STATE 11814), (sym_class_definition, STATE 927),
    (sym_trait_definition, STATE 927), (sym_decorated_definition, STATE 927),
    (sym_decorator, STATE 3670), (sym_block, STATE 4618), (sym_pattern, STATE 8086),
    (sym_tuple_pattern, STATE 8101), (sym_list_pattern, STATE 8101),
    (sym_list_splat_pattern, STATE 6819), (sym_as_pattern, STATE 7969),
    (sym_expression, STATE 9883), (sym_primary_expression, STATE 7326),
    (sym_comptime_expression, STATE 7017), (sym_transfer_expression, STATE 7017),
    (sym_not_operator, STATE 7969), (sym_boolean_operator, STATE 7969),
    (sym_binary_operator, STATE 7017), (sym_unary_operator, STATE 7017),
    (sym_comparison_operator, STATE 7969), (sym_lambda, STATE 7969),
    (sym_assignment, STATE 12425), (sym_augmented_assignment, STATE 12425),
    (sym_pattern_list, STATE 8578), (sym_yield, STATE 12425), (sym_attribute, STATE 6836),
    (sym_subscript, STATE 6838), (sym_call, STATE 6845), (sym_mlir_type, STATE 7017),
    (sym_list, STATE 7017), (sym_set, STATE 7017), (sym_tuple, STATE 7017),
    (sym_dictionary, STATE 7017), (sym_struct_literal, STATE 7017),
    (sym_list_comprehension, STATE 7017), (sym_dictionary_comprehension, STATE 7017),
    (sym_set_comprehension, STATE 7017), (sym_generator_expression, STATE 7017),
    (sym_parenthesized_expression, STATE 7017), (sym_conditional_expression, STATE 7969),
    (sym_concatenated_string, STATE 7017), (sym_string, STATE 6751), (sym_await, STATE 7017),
    (aux_sym_module_repeat1, STATE 927), (aux_sym_decorated_definition_repeat1, STATE 3670),
    (sym_identifier, ACTIONS 9), (anon_sym_import, ACTIONS 11), (anon_sym_from, ACTIONS 13),
    (anon_sym_LPAREN, ACTIONS 15), (anon_sym_STAR, ACTIONS 17), (anon_sym_print, ACTIONS 19),
    (anon_sym_comptime, ACTIONS 99), (anon_sym_assert, ACTIONS 23),
    (anon_sym___comptime_assert, ACTIONS 25), (anon_sym_return, ACTIONS 27),
    (anon_sym_del, ACTIONS 29), (anon_sym_raise, ACTIONS 31), (anon_sym_pass, ACTIONS 33),
    (anon_sym_break, ACTIONS 35), (anon_sym_continue, ACTIONS 37),
    (anon_sym___extension, ACTIONS 101), (anon_sym___mlir_region, ACTIONS 103),
    (anon_sym_if, ACTIONS 105), (anon_sym_match, ACTIONS 107), (anon_sym_async, ACTIONS 109),
    (anon_sym_for, ACTIONS 111), (anon_sym_while, ACTIONS 113), (anon_sym_try, ACTIONS 115),
    (anon_sym_with, ACTIONS 117), (anon_sym_def, ACTIONS 119), (anon_sym_fn, ACTIONS 119),
    (anon_sym_LBRACK, ACTIONS 59), (anon_sym_LBRACE, ACTIONS 61), (anon_sym_global, ACTIONS 63),
    (anon_sym_nonlocal, ACTIONS 65), (anon_sym_exec, ACTIONS 67), (anon_sym_type, ACTIONS 69),
    (anon_sym_class, ACTIONS 121), (anon_sym_struct, ACTIONS 121), (anon_sym_mut, ACTIONS 73),
    (anon_sym_out, ACTIONS 73), (anon_sym_trait, ACTIONS 123), (anon_sym_AT, ACTIONS 77),
    (anon_sym_DASH, ACTIONS 79), (anon_sym_PLUS, ACTIONS 79), (anon_sym_ref, ACTIONS 81),
    (anon_sym_var, ACTIONS 81), (anon_sym_not, ACTIONS 83), (anon_sym_TILDE, ACTIONS 79),
    (anon_sym_lambda, ACTIONS 85), (anon_sym_yield, ACTIONS 87), (sym_ellipsis, ACTIONS 89),
    (anon_sym___mlir_type, ACTIONS 91), (sym_integer, ACTIONS 93), (sym_float, ACTIONS 89),
    (anon_sym_await, ACTIONS 95), (sym_true, ACTIONS 93), (sym_false, ACTIONS 93),
    (sym_none, ACTIONS 93), (sym_comment, ACTIONS 3), (sym_line_continuation, ACTIONS 3),
    (sym__dedent, ACTIONS 125), (sym_string_start, ACTIONS 97)]"

definition parse_table_485 :: "(nat \<times> nat) list" where "parse_table_485 = [
    (sym__statement, STATE 927), (sym__simple_statements, STATE 927),
    (sym_import_statement, STATE 11814), (sym_future_import_statement, STATE 11814),
    (sym_import_from_statement, STATE 11814), (sym_print_statement, STATE 11814),
    (sym_assert_statement, STATE 11814), (sym_comptime_assert_statement, STATE 11814),
    (sym_expression_statement, STATE 11814), (sym_tuple_expression, STATE 12425),
    (sym_named_expression, STATE 7969), (sym__named_expression_lhs, STATE 12752),
    (sym_return_statement, STATE 11814), (sym_delete_statement, STATE 11814),
    (sym_raise_statement, STATE 11814), (sym_pass_statement, STATE 11814),
    (sym_break_statement, STATE 11814), (sym_continue_statement, STATE 11814),
    (sym_extension_definition, STATE 927), (sym_mlir_region, STATE 927),
    (sym_comptime_statement, STATE 927), (sym_if_statement, STATE 927),
    (sym_match_statement, STATE 927), (sym_for_statement, STATE 927),
    (sym_while_statement, STATE 927), (sym_try_statement, STATE 927),
    (sym_with_statement, STATE 927), (sym_function_definition, STATE 927),
    (sym_global_statement, STATE 11814), (sym_nonlocal_statement, STATE 11814),
    (sym_exec_statement, STATE 11814), (sym_type_alias_statement, STATE 11814),
    (sym_parameterized_alias_statement, STATE 11814), (sym_class_definition, STATE 927),
    (sym_trait_definition, STATE 927), (sym_decorated_definition, STATE 927),
    (sym_decorator, STATE 3670), (sym_block, STATE 4310), (sym_pattern, STATE 8086),
    (sym_tuple_pattern, STATE 8101), (sym_list_pattern, STATE 8101),
    (sym_list_splat_pattern, STATE 6819), (sym_as_pattern, STATE 7969),
    (sym_expression, STATE 9883), (sym_primary_expression, STATE 7326),
    (sym_comptime_expression, STATE 7017), (sym_transfer_expression, STATE 7017),
    (sym_not_operator, STATE 7969), (sym_boolean_operator, STATE 7969),
    (sym_binary_operator, STATE 7017), (sym_unary_operator, STATE 7017),
    (sym_comparison_operator, STATE 7969), (sym_lambda, STATE 7969),
    (sym_assignment, STATE 12425), (sym_augmented_assignment, STATE 12425),
    (sym_pattern_list, STATE 8578), (sym_yield, STATE 12425), (sym_attribute, STATE 6836),
    (sym_subscript, STATE 6838), (sym_call, STATE 6845), (sym_mlir_type, STATE 7017),
    (sym_list, STATE 7017), (sym_set, STATE 7017), (sym_tuple, STATE 7017),
    (sym_dictionary, STATE 7017), (sym_struct_literal, STATE 7017),
    (sym_list_comprehension, STATE 7017), (sym_dictionary_comprehension, STATE 7017),
    (sym_set_comprehension, STATE 7017), (sym_generator_expression, STATE 7017),
    (sym_parenthesized_expression, STATE 7017), (sym_conditional_expression, STATE 7969),
    (sym_concatenated_string, STATE 7017), (sym_string, STATE 6751), (sym_await, STATE 7017),
    (aux_sym_module_repeat1, STATE 927), (aux_sym_decorated_definition_repeat1, STATE 3670),
    (sym_identifier, ACTIONS 9), (anon_sym_import, ACTIONS 11), (anon_sym_from, ACTIONS 13),
    (anon_sym_LPAREN, ACTIONS 15), (anon_sym_STAR, ACTIONS 17), (anon_sym_print, ACTIONS 19),
    (anon_sym_comptime, ACTIONS 99), (anon_sym_assert, ACTIONS 23),
    (anon_sym___comptime_assert, ACTIONS 25), (anon_sym_return, ACTIONS 27),
    (anon_sym_del, ACTIONS 29), (anon_sym_raise, ACTIONS 31), (anon_sym_pass, ACTIONS 33),
    (anon_sym_break, ACTIONS 35), (anon_sym_continue, ACTIONS 37),
    (anon_sym___extension, ACTIONS 101), (anon_sym___mlir_region, ACTIONS 103),
    (anon_sym_if, ACTIONS 105), (anon_sym_match, ACTIONS 107), (anon_sym_async, ACTIONS 109),
    (anon_sym_for, ACTIONS 111), (anon_sym_while, ACTIONS 113), (anon_sym_try, ACTIONS 115),
    (anon_sym_with, ACTIONS 117), (anon_sym_def, ACTIONS 119), (anon_sym_fn, ACTIONS 119),
    (anon_sym_LBRACK, ACTIONS 59), (anon_sym_LBRACE, ACTIONS 61), (anon_sym_global, ACTIONS 63),
    (anon_sym_nonlocal, ACTIONS 65), (anon_sym_exec, ACTIONS 67), (anon_sym_type, ACTIONS 69),
    (anon_sym_class, ACTIONS 121), (anon_sym_struct, ACTIONS 121), (anon_sym_mut, ACTIONS 73),
    (anon_sym_out, ACTIONS 73), (anon_sym_trait, ACTIONS 123), (anon_sym_AT, ACTIONS 77),
    (anon_sym_DASH, ACTIONS 79), (anon_sym_PLUS, ACTIONS 79), (anon_sym_ref, ACTIONS 81),
    (anon_sym_var, ACTIONS 81), (anon_sym_not, ACTIONS 83), (anon_sym_TILDE, ACTIONS 79),
    (anon_sym_lambda, ACTIONS 85), (anon_sym_yield, ACTIONS 87), (sym_ellipsis, ACTIONS 89),
    (anon_sym___mlir_type, ACTIONS 91), (sym_integer, ACTIONS 93), (sym_float, ACTIONS 89),
    (anon_sym_await, ACTIONS 95), (sym_true, ACTIONS 93), (sym_false, ACTIONS 93),
    (sym_none, ACTIONS 93), (sym_comment, ACTIONS 3), (sym_line_continuation, ACTIONS 3),
    (sym__dedent, ACTIONS 125), (sym_string_start, ACTIONS 97)]"

definition parse_table_486 :: "(nat \<times> nat) list" where "parse_table_486 = [
    (sym__statement, STATE 927), (sym__simple_statements, STATE 927),
    (sym_import_statement, STATE 11814), (sym_future_import_statement, STATE 11814),
    (sym_import_from_statement, STATE 11814), (sym_print_statement, STATE 11814),
    (sym_assert_statement, STATE 11814), (sym_comptime_assert_statement, STATE 11814),
    (sym_expression_statement, STATE 11814), (sym_tuple_expression, STATE 12425),
    (sym_named_expression, STATE 7969), (sym__named_expression_lhs, STATE 12752),
    (sym_return_statement, STATE 11814), (sym_delete_statement, STATE 11814),
    (sym_raise_statement, STATE 11814), (sym_pass_statement, STATE 11814),
    (sym_break_statement, STATE 11814), (sym_continue_statement, STATE 11814),
    (sym_extension_definition, STATE 927), (sym_mlir_region, STATE 927),
    (sym_comptime_statement, STATE 927), (sym_if_statement, STATE 927),
    (sym_match_statement, STATE 927), (sym_for_statement, STATE 927),
    (sym_while_statement, STATE 927), (sym_try_statement, STATE 927),
    (sym_with_statement, STATE 927), (sym_function_definition, STATE 927),
    (sym_global_statement, STATE 11814), (sym_nonlocal_statement, STATE 11814),
    (sym_exec_statement, STATE 11814), (sym_type_alias_statement, STATE 11814),
    (sym_parameterized_alias_statement, STATE 11814), (sym_class_definition, STATE 927),
    (sym_trait_definition, STATE 927), (sym_decorated_definition, STATE 927),
    (sym_decorator, STATE 3670), (sym_block, STATE 4300), (sym_pattern, STATE 8086),
    (sym_tuple_pattern, STATE 8101), (sym_list_pattern, STATE 8101),
    (sym_list_splat_pattern, STATE 6819), (sym_as_pattern, STATE 7969),
    (sym_expression, STATE 9883), (sym_primary_expression, STATE 7326),
    (sym_comptime_expression, STATE 7017), (sym_transfer_expression, STATE 7017),
    (sym_not_operator, STATE 7969), (sym_boolean_operator, STATE 7969),
    (sym_binary_operator, STATE 7017), (sym_unary_operator, STATE 7017),
    (sym_comparison_operator, STATE 7969), (sym_lambda, STATE 7969),
    (sym_assignment, STATE 12425), (sym_augmented_assignment, STATE 12425),
    (sym_pattern_list, STATE 8578), (sym_yield, STATE 12425), (sym_attribute, STATE 6836),
    (sym_subscript, STATE 6838), (sym_call, STATE 6845), (sym_mlir_type, STATE 7017),
    (sym_list, STATE 7017), (sym_set, STATE 7017), (sym_tuple, STATE 7017),
    (sym_dictionary, STATE 7017), (sym_struct_literal, STATE 7017),
    (sym_list_comprehension, STATE 7017), (sym_dictionary_comprehension, STATE 7017),
    (sym_set_comprehension, STATE 7017), (sym_generator_expression, STATE 7017),
    (sym_parenthesized_expression, STATE 7017), (sym_conditional_expression, STATE 7969),
    (sym_concatenated_string, STATE 7017), (sym_string, STATE 6751), (sym_await, STATE 7017),
    (aux_sym_module_repeat1, STATE 927), (aux_sym_decorated_definition_repeat1, STATE 3670),
    (sym_identifier, ACTIONS 9), (anon_sym_import, ACTIONS 11), (anon_sym_from, ACTIONS 13),
    (anon_sym_LPAREN, ACTIONS 15), (anon_sym_STAR, ACTIONS 17), (anon_sym_print, ACTIONS 19),
    (anon_sym_comptime, ACTIONS 99), (anon_sym_assert, ACTIONS 23),
    (anon_sym___comptime_assert, ACTIONS 25), (anon_sym_return, ACTIONS 27),
    (anon_sym_del, ACTIONS 29), (anon_sym_raise, ACTIONS 31), (anon_sym_pass, ACTIONS 33),
    (anon_sym_break, ACTIONS 35), (anon_sym_continue, ACTIONS 37),
    (anon_sym___extension, ACTIONS 101), (anon_sym___mlir_region, ACTIONS 103),
    (anon_sym_if, ACTIONS 105), (anon_sym_match, ACTIONS 107), (anon_sym_async, ACTIONS 109),
    (anon_sym_for, ACTIONS 111), (anon_sym_while, ACTIONS 113), (anon_sym_try, ACTIONS 115),
    (anon_sym_with, ACTIONS 117), (anon_sym_def, ACTIONS 119), (anon_sym_fn, ACTIONS 119),
    (anon_sym_LBRACK, ACTIONS 59), (anon_sym_LBRACE, ACTIONS 61), (anon_sym_global, ACTIONS 63),
    (anon_sym_nonlocal, ACTIONS 65), (anon_sym_exec, ACTIONS 67), (anon_sym_type, ACTIONS 69),
    (anon_sym_class, ACTIONS 121), (anon_sym_struct, ACTIONS 121), (anon_sym_mut, ACTIONS 73),
    (anon_sym_out, ACTIONS 73), (anon_sym_trait, ACTIONS 123), (anon_sym_AT, ACTIONS 77),
    (anon_sym_DASH, ACTIONS 79), (anon_sym_PLUS, ACTIONS 79), (anon_sym_ref, ACTIONS 81),
    (anon_sym_var, ACTIONS 81), (anon_sym_not, ACTIONS 83), (anon_sym_TILDE, ACTIONS 79),
    (anon_sym_lambda, ACTIONS 85), (anon_sym_yield, ACTIONS 87), (sym_ellipsis, ACTIONS 89),
    (anon_sym___mlir_type, ACTIONS 91), (sym_integer, ACTIONS 93), (sym_float, ACTIONS 89),
    (anon_sym_await, ACTIONS 95), (sym_true, ACTIONS 93), (sym_false, ACTIONS 93),
    (sym_none, ACTIONS 93), (sym_comment, ACTIONS 3), (sym_line_continuation, ACTIONS 3),
    (sym__dedent, ACTIONS 125), (sym_string_start, ACTIONS 97)]"

definition parse_table_487 :: "(nat \<times> nat) list" where "parse_table_487 = [
    (sym__statement, STATE 927), (sym__simple_statements, STATE 927),
    (sym_import_statement, STATE 11814), (sym_future_import_statement, STATE 11814),
    (sym_import_from_statement, STATE 11814), (sym_print_statement, STATE 11814),
    (sym_assert_statement, STATE 11814), (sym_comptime_assert_statement, STATE 11814),
    (sym_expression_statement, STATE 11814), (sym_tuple_expression, STATE 12425),
    (sym_named_expression, STATE 7969), (sym__named_expression_lhs, STATE 12752),
    (sym_return_statement, STATE 11814), (sym_delete_statement, STATE 11814),
    (sym_raise_statement, STATE 11814), (sym_pass_statement, STATE 11814),
    (sym_break_statement, STATE 11814), (sym_continue_statement, STATE 11814),
    (sym_extension_definition, STATE 927), (sym_mlir_region, STATE 927),
    (sym_comptime_statement, STATE 927), (sym_if_statement, STATE 927),
    (sym_match_statement, STATE 927), (sym_for_statement, STATE 927),
    (sym_while_statement, STATE 927), (sym_try_statement, STATE 927),
    (sym_with_statement, STATE 927), (sym_function_definition, STATE 927),
    (sym_global_statement, STATE 11814), (sym_nonlocal_statement, STATE 11814),
    (sym_exec_statement, STATE 11814), (sym_type_alias_statement, STATE 11814),
    (sym_parameterized_alias_statement, STATE 11814), (sym_class_definition, STATE 927),
    (sym_trait_definition, STATE 927), (sym_decorated_definition, STATE 927),
    (sym_decorator, STATE 3670), (sym_block, STATE 4623), (sym_pattern, STATE 8086),
    (sym_tuple_pattern, STATE 8101), (sym_list_pattern, STATE 8101),
    (sym_list_splat_pattern, STATE 6819), (sym_as_pattern, STATE 7969),
    (sym_expression, STATE 9883), (sym_primary_expression, STATE 7326),
    (sym_comptime_expression, STATE 7017), (sym_transfer_expression, STATE 7017),
    (sym_not_operator, STATE 7969), (sym_boolean_operator, STATE 7969),
    (sym_binary_operator, STATE 7017), (sym_unary_operator, STATE 7017),
    (sym_comparison_operator, STATE 7969), (sym_lambda, STATE 7969),
    (sym_assignment, STATE 12425), (sym_augmented_assignment, STATE 12425),
    (sym_pattern_list, STATE 8578), (sym_yield, STATE 12425), (sym_attribute, STATE 6836),
    (sym_subscript, STATE 6838), (sym_call, STATE 6845), (sym_mlir_type, STATE 7017),
    (sym_list, STATE 7017), (sym_set, STATE 7017), (sym_tuple, STATE 7017),
    (sym_dictionary, STATE 7017), (sym_struct_literal, STATE 7017),
    (sym_list_comprehension, STATE 7017), (sym_dictionary_comprehension, STATE 7017),
    (sym_set_comprehension, STATE 7017), (sym_generator_expression, STATE 7017),
    (sym_parenthesized_expression, STATE 7017), (sym_conditional_expression, STATE 7969),
    (sym_concatenated_string, STATE 7017), (sym_string, STATE 6751), (sym_await, STATE 7017),
    (aux_sym_module_repeat1, STATE 927), (aux_sym_decorated_definition_repeat1, STATE 3670),
    (sym_identifier, ACTIONS 9), (anon_sym_import, ACTIONS 11), (anon_sym_from, ACTIONS 13),
    (anon_sym_LPAREN, ACTIONS 15), (anon_sym_STAR, ACTIONS 17), (anon_sym_print, ACTIONS 19),
    (anon_sym_comptime, ACTIONS 99), (anon_sym_assert, ACTIONS 23),
    (anon_sym___comptime_assert, ACTIONS 25), (anon_sym_return, ACTIONS 27),
    (anon_sym_del, ACTIONS 29), (anon_sym_raise, ACTIONS 31), (anon_sym_pass, ACTIONS 33),
    (anon_sym_break, ACTIONS 35), (anon_sym_continue, ACTIONS 37),
    (anon_sym___extension, ACTIONS 101), (anon_sym___mlir_region, ACTIONS 103),
    (anon_sym_if, ACTIONS 105), (anon_sym_match, ACTIONS 107), (anon_sym_async, ACTIONS 109),
    (anon_sym_for, ACTIONS 111), (anon_sym_while, ACTIONS 113), (anon_sym_try, ACTIONS 115),
    (anon_sym_with, ACTIONS 117), (anon_sym_def, ACTIONS 119), (anon_sym_fn, ACTIONS 119),
    (anon_sym_LBRACK, ACTIONS 59), (anon_sym_LBRACE, ACTIONS 61), (anon_sym_global, ACTIONS 63),
    (anon_sym_nonlocal, ACTIONS 65), (anon_sym_exec, ACTIONS 67), (anon_sym_type, ACTIONS 69),
    (anon_sym_class, ACTIONS 121), (anon_sym_struct, ACTIONS 121), (anon_sym_mut, ACTIONS 73),
    (anon_sym_out, ACTIONS 73), (anon_sym_trait, ACTIONS 123), (anon_sym_AT, ACTIONS 77),
    (anon_sym_DASH, ACTIONS 79), (anon_sym_PLUS, ACTIONS 79), (anon_sym_ref, ACTIONS 81),
    (anon_sym_var, ACTIONS 81), (anon_sym_not, ACTIONS 83), (anon_sym_TILDE, ACTIONS 79),
    (anon_sym_lambda, ACTIONS 85), (anon_sym_yield, ACTIONS 87), (sym_ellipsis, ACTIONS 89),
    (anon_sym___mlir_type, ACTIONS 91), (sym_integer, ACTIONS 93), (sym_float, ACTIONS 89),
    (anon_sym_await, ACTIONS 95), (sym_true, ACTIONS 93), (sym_false, ACTIONS 93),
    (sym_none, ACTIONS 93), (sym_comment, ACTIONS 3), (sym_line_continuation, ACTIONS 3),
    (sym__dedent, ACTIONS 125), (sym_string_start, ACTIONS 97)]"

definition parse_table_488 :: "(nat \<times> nat) list" where "parse_table_488 = [
    (sym__statement, STATE 927), (sym__simple_statements, STATE 927),
    (sym_import_statement, STATE 11814), (sym_future_import_statement, STATE 11814),
    (sym_import_from_statement, STATE 11814), (sym_print_statement, STATE 11814),
    (sym_assert_statement, STATE 11814), (sym_comptime_assert_statement, STATE 11814),
    (sym_expression_statement, STATE 11814), (sym_tuple_expression, STATE 12425),
    (sym_named_expression, STATE 7969), (sym__named_expression_lhs, STATE 12752),
    (sym_return_statement, STATE 11814), (sym_delete_statement, STATE 11814),
    (sym_raise_statement, STATE 11814), (sym_pass_statement, STATE 11814),
    (sym_break_statement, STATE 11814), (sym_continue_statement, STATE 11814),
    (sym_extension_definition, STATE 927), (sym_mlir_region, STATE 927),
    (sym_comptime_statement, STATE 927), (sym_if_statement, STATE 927),
    (sym_match_statement, STATE 927), (sym_for_statement, STATE 927),
    (sym_while_statement, STATE 927), (sym_try_statement, STATE 927),
    (sym_with_statement, STATE 927), (sym_function_definition, STATE 927),
    (sym_global_statement, STATE 11814), (sym_nonlocal_statement, STATE 11814),
    (sym_exec_statement, STATE 11814), (sym_type_alias_statement, STATE 11814),
    (sym_parameterized_alias_statement, STATE 11814), (sym_class_definition, STATE 927),
    (sym_trait_definition, STATE 927), (sym_decorated_definition, STATE 927),
    (sym_decorator, STATE 3670), (sym_block, STATE 4625), (sym_pattern, STATE 8086),
    (sym_tuple_pattern, STATE 8101), (sym_list_pattern, STATE 8101),
    (sym_list_splat_pattern, STATE 6819), (sym_as_pattern, STATE 7969),
    (sym_expression, STATE 9883), (sym_primary_expression, STATE 7326),
    (sym_comptime_expression, STATE 7017), (sym_transfer_expression, STATE 7017),
    (sym_not_operator, STATE 7969), (sym_boolean_operator, STATE 7969),
    (sym_binary_operator, STATE 7017), (sym_unary_operator, STATE 7017),
    (sym_comparison_operator, STATE 7969), (sym_lambda, STATE 7969),
    (sym_assignment, STATE 12425), (sym_augmented_assignment, STATE 12425),
    (sym_pattern_list, STATE 8578), (sym_yield, STATE 12425), (sym_attribute, STATE 6836),
    (sym_subscript, STATE 6838), (sym_call, STATE 6845), (sym_mlir_type, STATE 7017),
    (sym_list, STATE 7017), (sym_set, STATE 7017), (sym_tuple, STATE 7017),
    (sym_dictionary, STATE 7017), (sym_struct_literal, STATE 7017),
    (sym_list_comprehension, STATE 7017), (sym_dictionary_comprehension, STATE 7017),
    (sym_set_comprehension, STATE 7017), (sym_generator_expression, STATE 7017),
    (sym_parenthesized_expression, STATE 7017), (sym_conditional_expression, STATE 7969),
    (sym_concatenated_string, STATE 7017), (sym_string, STATE 6751), (sym_await, STATE 7017),
    (aux_sym_module_repeat1, STATE 927), (aux_sym_decorated_definition_repeat1, STATE 3670),
    (sym_identifier, ACTIONS 9), (anon_sym_import, ACTIONS 11), (anon_sym_from, ACTIONS 13),
    (anon_sym_LPAREN, ACTIONS 15), (anon_sym_STAR, ACTIONS 17), (anon_sym_print, ACTIONS 19),
    (anon_sym_comptime, ACTIONS 99), (anon_sym_assert, ACTIONS 23),
    (anon_sym___comptime_assert, ACTIONS 25), (anon_sym_return, ACTIONS 27),
    (anon_sym_del, ACTIONS 29), (anon_sym_raise, ACTIONS 31), (anon_sym_pass, ACTIONS 33),
    (anon_sym_break, ACTIONS 35), (anon_sym_continue, ACTIONS 37),
    (anon_sym___extension, ACTIONS 101), (anon_sym___mlir_region, ACTIONS 103),
    (anon_sym_if, ACTIONS 105), (anon_sym_match, ACTIONS 107), (anon_sym_async, ACTIONS 109),
    (anon_sym_for, ACTIONS 111), (anon_sym_while, ACTIONS 113), (anon_sym_try, ACTIONS 115),
    (anon_sym_with, ACTIONS 117), (anon_sym_def, ACTIONS 119), (anon_sym_fn, ACTIONS 119),
    (anon_sym_LBRACK, ACTIONS 59), (anon_sym_LBRACE, ACTIONS 61), (anon_sym_global, ACTIONS 63),
    (anon_sym_nonlocal, ACTIONS 65), (anon_sym_exec, ACTIONS 67), (anon_sym_type, ACTIONS 69),
    (anon_sym_class, ACTIONS 121), (anon_sym_struct, ACTIONS 121), (anon_sym_mut, ACTIONS 73),
    (anon_sym_out, ACTIONS 73), (anon_sym_trait, ACTIONS 123), (anon_sym_AT, ACTIONS 77),
    (anon_sym_DASH, ACTIONS 79), (anon_sym_PLUS, ACTIONS 79), (anon_sym_ref, ACTIONS 81),
    (anon_sym_var, ACTIONS 81), (anon_sym_not, ACTIONS 83), (anon_sym_TILDE, ACTIONS 79),
    (anon_sym_lambda, ACTIONS 85), (anon_sym_yield, ACTIONS 87), (sym_ellipsis, ACTIONS 89),
    (anon_sym___mlir_type, ACTIONS 91), (sym_integer, ACTIONS 93), (sym_float, ACTIONS 89),
    (anon_sym_await, ACTIONS 95), (sym_true, ACTIONS 93), (sym_false, ACTIONS 93),
    (sym_none, ACTIONS 93), (sym_comment, ACTIONS 3), (sym_line_continuation, ACTIONS 3),
    (sym__dedent, ACTIONS 125), (sym_string_start, ACTIONS 97)]"

definition parse_table_489 :: "(nat \<times> nat) list" where "parse_table_489 = [
    (sym__statement, STATE 927), (sym__simple_statements, STATE 927),
    (sym_import_statement, STATE 11814), (sym_future_import_statement, STATE 11814),
    (sym_import_from_statement, STATE 11814), (sym_print_statement, STATE 11814),
    (sym_assert_statement, STATE 11814), (sym_comptime_assert_statement, STATE 11814),
    (sym_expression_statement, STATE 11814), (sym_tuple_expression, STATE 12425),
    (sym_named_expression, STATE 7969), (sym__named_expression_lhs, STATE 12752),
    (sym_return_statement, STATE 11814), (sym_delete_statement, STATE 11814),
    (sym_raise_statement, STATE 11814), (sym_pass_statement, STATE 11814),
    (sym_break_statement, STATE 11814), (sym_continue_statement, STATE 11814),
    (sym_extension_definition, STATE 927), (sym_mlir_region, STATE 927),
    (sym_comptime_statement, STATE 927), (sym_if_statement, STATE 927),
    (sym_match_statement, STATE 927), (sym_for_statement, STATE 927),
    (sym_while_statement, STATE 927), (sym_try_statement, STATE 927),
    (sym_with_statement, STATE 927), (sym_function_definition, STATE 927),
    (sym_global_statement, STATE 11814), (sym_nonlocal_statement, STATE 11814),
    (sym_exec_statement, STATE 11814), (sym_type_alias_statement, STATE 11814),
    (sym_parameterized_alias_statement, STATE 11814), (sym_class_definition, STATE 927),
    (sym_trait_definition, STATE 927), (sym_decorated_definition, STATE 927),
    (sym_decorator, STATE 3670), (sym_block, STATE 4634), (sym_pattern, STATE 8086),
    (sym_tuple_pattern, STATE 8101), (sym_list_pattern, STATE 8101),
    (sym_list_splat_pattern, STATE 6819), (sym_as_pattern, STATE 7969),
    (sym_expression, STATE 9883), (sym_primary_expression, STATE 7326),
    (sym_comptime_expression, STATE 7017), (sym_transfer_expression, STATE 7017),
    (sym_not_operator, STATE 7969), (sym_boolean_operator, STATE 7969),
    (sym_binary_operator, STATE 7017), (sym_unary_operator, STATE 7017),
    (sym_comparison_operator, STATE 7969), (sym_lambda, STATE 7969),
    (sym_assignment, STATE 12425), (sym_augmented_assignment, STATE 12425),
    (sym_pattern_list, STATE 8578), (sym_yield, STATE 12425), (sym_attribute, STATE 6836),
    (sym_subscript, STATE 6838), (sym_call, STATE 6845), (sym_mlir_type, STATE 7017),
    (sym_list, STATE 7017), (sym_set, STATE 7017), (sym_tuple, STATE 7017),
    (sym_dictionary, STATE 7017), (sym_struct_literal, STATE 7017),
    (sym_list_comprehension, STATE 7017), (sym_dictionary_comprehension, STATE 7017),
    (sym_set_comprehension, STATE 7017), (sym_generator_expression, STATE 7017),
    (sym_parenthesized_expression, STATE 7017), (sym_conditional_expression, STATE 7969),
    (sym_concatenated_string, STATE 7017), (sym_string, STATE 6751), (sym_await, STATE 7017),
    (aux_sym_module_repeat1, STATE 927), (aux_sym_decorated_definition_repeat1, STATE 3670),
    (sym_identifier, ACTIONS 9), (anon_sym_import, ACTIONS 11), (anon_sym_from, ACTIONS 13),
    (anon_sym_LPAREN, ACTIONS 15), (anon_sym_STAR, ACTIONS 17), (anon_sym_print, ACTIONS 19),
    (anon_sym_comptime, ACTIONS 99), (anon_sym_assert, ACTIONS 23),
    (anon_sym___comptime_assert, ACTIONS 25), (anon_sym_return, ACTIONS 27),
    (anon_sym_del, ACTIONS 29), (anon_sym_raise, ACTIONS 31), (anon_sym_pass, ACTIONS 33),
    (anon_sym_break, ACTIONS 35), (anon_sym_continue, ACTIONS 37),
    (anon_sym___extension, ACTIONS 101), (anon_sym___mlir_region, ACTIONS 103),
    (anon_sym_if, ACTIONS 105), (anon_sym_match, ACTIONS 107), (anon_sym_async, ACTIONS 109),
    (anon_sym_for, ACTIONS 111), (anon_sym_while, ACTIONS 113), (anon_sym_try, ACTIONS 115),
    (anon_sym_with, ACTIONS 117), (anon_sym_def, ACTIONS 119), (anon_sym_fn, ACTIONS 119),
    (anon_sym_LBRACK, ACTIONS 59), (anon_sym_LBRACE, ACTIONS 61), (anon_sym_global, ACTIONS 63),
    (anon_sym_nonlocal, ACTIONS 65), (anon_sym_exec, ACTIONS 67), (anon_sym_type, ACTIONS 69),
    (anon_sym_class, ACTIONS 121), (anon_sym_struct, ACTIONS 121), (anon_sym_mut, ACTIONS 73),
    (anon_sym_out, ACTIONS 73), (anon_sym_trait, ACTIONS 123), (anon_sym_AT, ACTIONS 77),
    (anon_sym_DASH, ACTIONS 79), (anon_sym_PLUS, ACTIONS 79), (anon_sym_ref, ACTIONS 81),
    (anon_sym_var, ACTIONS 81), (anon_sym_not, ACTIONS 83), (anon_sym_TILDE, ACTIONS 79),
    (anon_sym_lambda, ACTIONS 85), (anon_sym_yield, ACTIONS 87), (sym_ellipsis, ACTIONS 89),
    (anon_sym___mlir_type, ACTIONS 91), (sym_integer, ACTIONS 93), (sym_float, ACTIONS 89),
    (anon_sym_await, ACTIONS 95), (sym_true, ACTIONS 93), (sym_false, ACTIONS 93),
    (sym_none, ACTIONS 93), (sym_comment, ACTIONS 3), (sym_line_continuation, ACTIONS 3),
    (sym__dedent, ACTIONS 125), (sym_string_start, ACTIONS 97)]"

definition parse_table_490 :: "(nat \<times> nat) list" where "parse_table_490 = [
    (sym__statement, STATE 927), (sym__simple_statements, STATE 927),
    (sym_import_statement, STATE 11814), (sym_future_import_statement, STATE 11814),
    (sym_import_from_statement, STATE 11814), (sym_print_statement, STATE 11814),
    (sym_assert_statement, STATE 11814), (sym_comptime_assert_statement, STATE 11814),
    (sym_expression_statement, STATE 11814), (sym_tuple_expression, STATE 12425),
    (sym_named_expression, STATE 7969), (sym__named_expression_lhs, STATE 12752),
    (sym_return_statement, STATE 11814), (sym_delete_statement, STATE 11814),
    (sym_raise_statement, STATE 11814), (sym_pass_statement, STATE 11814),
    (sym_break_statement, STATE 11814), (sym_continue_statement, STATE 11814),
    (sym_extension_definition, STATE 927), (sym_mlir_region, STATE 927),
    (sym_comptime_statement, STATE 927), (sym_if_statement, STATE 927),
    (sym_match_statement, STATE 927), (sym_for_statement, STATE 927),
    (sym_while_statement, STATE 927), (sym_try_statement, STATE 927),
    (sym_with_statement, STATE 927), (sym_function_definition, STATE 927),
    (sym_global_statement, STATE 11814), (sym_nonlocal_statement, STATE 11814),
    (sym_exec_statement, STATE 11814), (sym_type_alias_statement, STATE 11814),
    (sym_parameterized_alias_statement, STATE 11814), (sym_class_definition, STATE 927),
    (sym_trait_definition, STATE 927), (sym_decorated_definition, STATE 927),
    (sym_decorator, STATE 3670), (sym_block, STATE 4148), (sym_pattern, STATE 8086),
    (sym_tuple_pattern, STATE 8101), (sym_list_pattern, STATE 8101),
    (sym_list_splat_pattern, STATE 6819), (sym_as_pattern, STATE 7969),
    (sym_expression, STATE 9883), (sym_primary_expression, STATE 7326),
    (sym_comptime_expression, STATE 7017), (sym_transfer_expression, STATE 7017),
    (sym_not_operator, STATE 7969), (sym_boolean_operator, STATE 7969),
    (sym_binary_operator, STATE 7017), (sym_unary_operator, STATE 7017),
    (sym_comparison_operator, STATE 7969), (sym_lambda, STATE 7969),
    (sym_assignment, STATE 12425), (sym_augmented_assignment, STATE 12425),
    (sym_pattern_list, STATE 8578), (sym_yield, STATE 12425), (sym_attribute, STATE 6836),
    (sym_subscript, STATE 6838), (sym_call, STATE 6845), (sym_mlir_type, STATE 7017),
    (sym_list, STATE 7017), (sym_set, STATE 7017), (sym_tuple, STATE 7017),
    (sym_dictionary, STATE 7017), (sym_struct_literal, STATE 7017),
    (sym_list_comprehension, STATE 7017), (sym_dictionary_comprehension, STATE 7017),
    (sym_set_comprehension, STATE 7017), (sym_generator_expression, STATE 7017),
    (sym_parenthesized_expression, STATE 7017), (sym_conditional_expression, STATE 7969),
    (sym_concatenated_string, STATE 7017), (sym_string, STATE 6751), (sym_await, STATE 7017),
    (aux_sym_module_repeat1, STATE 927), (aux_sym_decorated_definition_repeat1, STATE 3670),
    (sym_identifier, ACTIONS 9), (anon_sym_import, ACTIONS 11), (anon_sym_from, ACTIONS 13),
    (anon_sym_LPAREN, ACTIONS 15), (anon_sym_STAR, ACTIONS 17), (anon_sym_print, ACTIONS 19),
    (anon_sym_comptime, ACTIONS 99), (anon_sym_assert, ACTIONS 23),
    (anon_sym___comptime_assert, ACTIONS 25), (anon_sym_return, ACTIONS 27),
    (anon_sym_del, ACTIONS 29), (anon_sym_raise, ACTIONS 31), (anon_sym_pass, ACTIONS 33),
    (anon_sym_break, ACTIONS 35), (anon_sym_continue, ACTIONS 37),
    (anon_sym___extension, ACTIONS 101), (anon_sym___mlir_region, ACTIONS 103),
    (anon_sym_if, ACTIONS 105), (anon_sym_match, ACTIONS 107), (anon_sym_async, ACTIONS 109),
    (anon_sym_for, ACTIONS 111), (anon_sym_while, ACTIONS 113), (anon_sym_try, ACTIONS 115),
    (anon_sym_with, ACTIONS 117), (anon_sym_def, ACTIONS 119), (anon_sym_fn, ACTIONS 119),
    (anon_sym_LBRACK, ACTIONS 59), (anon_sym_LBRACE, ACTIONS 61), (anon_sym_global, ACTIONS 63),
    (anon_sym_nonlocal, ACTIONS 65), (anon_sym_exec, ACTIONS 67), (anon_sym_type, ACTIONS 69),
    (anon_sym_class, ACTIONS 121), (anon_sym_struct, ACTIONS 121), (anon_sym_mut, ACTIONS 73),
    (anon_sym_out, ACTIONS 73), (anon_sym_trait, ACTIONS 123), (anon_sym_AT, ACTIONS 77),
    (anon_sym_DASH, ACTIONS 79), (anon_sym_PLUS, ACTIONS 79), (anon_sym_ref, ACTIONS 81),
    (anon_sym_var, ACTIONS 81), (anon_sym_not, ACTIONS 83), (anon_sym_TILDE, ACTIONS 79),
    (anon_sym_lambda, ACTIONS 85), (anon_sym_yield, ACTIONS 87), (sym_ellipsis, ACTIONS 89),
    (anon_sym___mlir_type, ACTIONS 91), (sym_integer, ACTIONS 93), (sym_float, ACTIONS 89),
    (anon_sym_await, ACTIONS 95), (sym_true, ACTIONS 93), (sym_false, ACTIONS 93),
    (sym_none, ACTIONS 93), (sym_comment, ACTIONS 3), (sym_line_continuation, ACTIONS 3),
    (sym__dedent, ACTIONS 125), (sym_string_start, ACTIONS 97)]"

definition parse_table_491 :: "(nat \<times> nat) list" where "parse_table_491 = [
    (sym__statement, STATE 920), (sym__simple_statements, STATE 920),
    (sym_import_statement, STATE 11814), (sym_future_import_statement, STATE 11814),
    (sym_import_from_statement, STATE 11814), (sym_print_statement, STATE 11814),
    (sym_assert_statement, STATE 11814), (sym_comptime_assert_statement, STATE 11814),
    (sym_expression_statement, STATE 11814), (sym_tuple_expression, STATE 12425),
    (sym_named_expression, STATE 7969), (sym__named_expression_lhs, STATE 12752),
    (sym_return_statement, STATE 11814), (sym_delete_statement, STATE 11814),
    (sym_raise_statement, STATE 11814), (sym_pass_statement, STATE 11814),
    (sym_break_statement, STATE 11814), (sym_continue_statement, STATE 11814),
    (sym_extension_definition, STATE 920), (sym_mlir_region, STATE 920),
    (sym_comptime_statement, STATE 920), (sym_if_statement, STATE 920),
    (sym_match_statement, STATE 920), (sym_for_statement, STATE 920),
    (sym_while_statement, STATE 920), (sym_try_statement, STATE 920),
    (sym_with_statement, STATE 920), (sym_function_definition, STATE 920),
    (sym_global_statement, STATE 11814), (sym_nonlocal_statement, STATE 11814),
    (sym_exec_statement, STATE 11814), (sym_type_alias_statement, STATE 11814),
    (sym_parameterized_alias_statement, STATE 11814), (sym_class_definition, STATE 920),
    (sym_trait_definition, STATE 920), (sym_decorated_definition, STATE 920),
    (sym_decorator, STATE 3670), (sym_block, STATE 4108), (sym_pattern, STATE 8086),
    (sym_tuple_pattern, STATE 8101), (sym_list_pattern, STATE 8101),
    (sym_list_splat_pattern, STATE 6819), (sym_as_pattern, STATE 7969),
    (sym_expression, STATE 9883), (sym_primary_expression, STATE 7326),
    (sym_comptime_expression, STATE 7017), (sym_transfer_expression, STATE 7017),
    (sym_not_operator, STATE 7969), (sym_boolean_operator, STATE 7969),
    (sym_binary_operator, STATE 7017), (sym_unary_operator, STATE 7017),
    (sym_comparison_operator, STATE 7969), (sym_lambda, STATE 7969),
    (sym_assignment, STATE 12425), (sym_augmented_assignment, STATE 12425),
    (sym_pattern_list, STATE 8578), (sym_yield, STATE 12425), (sym_attribute, STATE 6836),
    (sym_subscript, STATE 6838), (sym_call, STATE 6845), (sym_mlir_type, STATE 7017),
    (sym_list, STATE 7017), (sym_set, STATE 7017), (sym_tuple, STATE 7017),
    (sym_dictionary, STATE 7017), (sym_struct_literal, STATE 7017),
    (sym_list_comprehension, STATE 7017), (sym_dictionary_comprehension, STATE 7017),
    (sym_set_comprehension, STATE 7017), (sym_generator_expression, STATE 7017),
    (sym_parenthesized_expression, STATE 7017), (sym_conditional_expression, STATE 7969),
    (sym_concatenated_string, STATE 7017), (sym_string, STATE 6751), (sym_await, STATE 7017),
    (aux_sym_module_repeat1, STATE 920), (aux_sym_decorated_definition_repeat1, STATE 3670),
    (sym_identifier, ACTIONS 9), (anon_sym_import, ACTIONS 11), (anon_sym_from, ACTIONS 13),
    (anon_sym_LPAREN, ACTIONS 15), (anon_sym_STAR, ACTIONS 17), (anon_sym_print, ACTIONS 19),
    (anon_sym_comptime, ACTIONS 99), (anon_sym_assert, ACTIONS 23),
    (anon_sym___comptime_assert, ACTIONS 25), (anon_sym_return, ACTIONS 27),
    (anon_sym_del, ACTIONS 29), (anon_sym_raise, ACTIONS 31), (anon_sym_pass, ACTIONS 33),
    (anon_sym_break, ACTIONS 35), (anon_sym_continue, ACTIONS 37),
    (anon_sym___extension, ACTIONS 101), (anon_sym___mlir_region, ACTIONS 103),
    (anon_sym_if, ACTIONS 105), (anon_sym_match, ACTIONS 107), (anon_sym_async, ACTIONS 109),
    (anon_sym_for, ACTIONS 111), (anon_sym_while, ACTIONS 113), (anon_sym_try, ACTIONS 115),
    (anon_sym_with, ACTIONS 117), (anon_sym_def, ACTIONS 119), (anon_sym_fn, ACTIONS 119),
    (anon_sym_LBRACK, ACTIONS 59), (anon_sym_LBRACE, ACTIONS 61), (anon_sym_global, ACTIONS 63),
    (anon_sym_nonlocal, ACTIONS 65), (anon_sym_exec, ACTIONS 67), (anon_sym_type, ACTIONS 69),
    (anon_sym_class, ACTIONS 121), (anon_sym_struct, ACTIONS 121), (anon_sym_mut, ACTIONS 73),
    (anon_sym_out, ACTIONS 73), (anon_sym_trait, ACTIONS 123), (anon_sym_AT, ACTIONS 77),
    (anon_sym_DASH, ACTIONS 79), (anon_sym_PLUS, ACTIONS 79), (anon_sym_ref, ACTIONS 81),
    (anon_sym_var, ACTIONS 81), (anon_sym_not, ACTIONS 83), (anon_sym_TILDE, ACTIONS 79),
    (anon_sym_lambda, ACTIONS 85), (anon_sym_yield, ACTIONS 87), (sym_ellipsis, ACTIONS 89),
    (anon_sym___mlir_type, ACTIONS 91), (sym_integer, ACTIONS 93), (sym_float, ACTIONS 89),
    (anon_sym_await, ACTIONS 95), (sym_true, ACTIONS 93), (sym_false, ACTIONS 93),
    (sym_none, ACTIONS 93), (sym_comment, ACTIONS 3), (sym_line_continuation, ACTIONS 3),
    (sym__dedent, ACTIONS 135), (sym_string_start, ACTIONS 97)]"

definition parse_table_492 :: "(nat \<times> nat) list" where "parse_table_492 = [
    (sym__statement, STATE 927), (sym__simple_statements, STATE 927),
    (sym_import_statement, STATE 11814), (sym_future_import_statement, STATE 11814),
    (sym_import_from_statement, STATE 11814), (sym_print_statement, STATE 11814),
    (sym_assert_statement, STATE 11814), (sym_comptime_assert_statement, STATE 11814),
    (sym_expression_statement, STATE 11814), (sym_tuple_expression, STATE 12425),
    (sym_named_expression, STATE 7969), (sym__named_expression_lhs, STATE 12752),
    (sym_return_statement, STATE 11814), (sym_delete_statement, STATE 11814),
    (sym_raise_statement, STATE 11814), (sym_pass_statement, STATE 11814),
    (sym_break_statement, STATE 11814), (sym_continue_statement, STATE 11814),
    (sym_extension_definition, STATE 927), (sym_mlir_region, STATE 927),
    (sym_comptime_statement, STATE 927), (sym_if_statement, STATE 927),
    (sym_match_statement, STATE 927), (sym_for_statement, STATE 927),
    (sym_while_statement, STATE 927), (sym_try_statement, STATE 927),
    (sym_with_statement, STATE 927), (sym_function_definition, STATE 927),
    (sym_global_statement, STATE 11814), (sym_nonlocal_statement, STATE 11814),
    (sym_exec_statement, STATE 11814), (sym_type_alias_statement, STATE 11814),
    (sym_parameterized_alias_statement, STATE 11814), (sym_class_definition, STATE 927),
    (sym_trait_definition, STATE 927), (sym_decorated_definition, STATE 927),
    (sym_decorator, STATE 3670), (sym_block, STATE 4643), (sym_pattern, STATE 8086),
    (sym_tuple_pattern, STATE 8101), (sym_list_pattern, STATE 8101),
    (sym_list_splat_pattern, STATE 6819), (sym_as_pattern, STATE 7969),
    (sym_expression, STATE 9883), (sym_primary_expression, STATE 7326),
    (sym_comptime_expression, STATE 7017), (sym_transfer_expression, STATE 7017),
    (sym_not_operator, STATE 7969), (sym_boolean_operator, STATE 7969),
    (sym_binary_operator, STATE 7017), (sym_unary_operator, STATE 7017),
    (sym_comparison_operator, STATE 7969), (sym_lambda, STATE 7969),
    (sym_assignment, STATE 12425), (sym_augmented_assignment, STATE 12425),
    (sym_pattern_list, STATE 8578), (sym_yield, STATE 12425), (sym_attribute, STATE 6836),
    (sym_subscript, STATE 6838), (sym_call, STATE 6845), (sym_mlir_type, STATE 7017),
    (sym_list, STATE 7017), (sym_set, STATE 7017), (sym_tuple, STATE 7017),
    (sym_dictionary, STATE 7017), (sym_struct_literal, STATE 7017),
    (sym_list_comprehension, STATE 7017), (sym_dictionary_comprehension, STATE 7017),
    (sym_set_comprehension, STATE 7017), (sym_generator_expression, STATE 7017),
    (sym_parenthesized_expression, STATE 7017), (sym_conditional_expression, STATE 7969),
    (sym_concatenated_string, STATE 7017), (sym_string, STATE 6751), (sym_await, STATE 7017),
    (aux_sym_module_repeat1, STATE 927), (aux_sym_decorated_definition_repeat1, STATE 3670),
    (sym_identifier, ACTIONS 9), (anon_sym_import, ACTIONS 11), (anon_sym_from, ACTIONS 13),
    (anon_sym_LPAREN, ACTIONS 15), (anon_sym_STAR, ACTIONS 17), (anon_sym_print, ACTIONS 19),
    (anon_sym_comptime, ACTIONS 99), (anon_sym_assert, ACTIONS 23),
    (anon_sym___comptime_assert, ACTIONS 25), (anon_sym_return, ACTIONS 27),
    (anon_sym_del, ACTIONS 29), (anon_sym_raise, ACTIONS 31), (anon_sym_pass, ACTIONS 33),
    (anon_sym_break, ACTIONS 35), (anon_sym_continue, ACTIONS 37),
    (anon_sym___extension, ACTIONS 101), (anon_sym___mlir_region, ACTIONS 103),
    (anon_sym_if, ACTIONS 105), (anon_sym_match, ACTIONS 107), (anon_sym_async, ACTIONS 109),
    (anon_sym_for, ACTIONS 111), (anon_sym_while, ACTIONS 113), (anon_sym_try, ACTIONS 115),
    (anon_sym_with, ACTIONS 117), (anon_sym_def, ACTIONS 119), (anon_sym_fn, ACTIONS 119),
    (anon_sym_LBRACK, ACTIONS 59), (anon_sym_LBRACE, ACTIONS 61), (anon_sym_global, ACTIONS 63),
    (anon_sym_nonlocal, ACTIONS 65), (anon_sym_exec, ACTIONS 67), (anon_sym_type, ACTIONS 69),
    (anon_sym_class, ACTIONS 121), (anon_sym_struct, ACTIONS 121), (anon_sym_mut, ACTIONS 73),
    (anon_sym_out, ACTIONS 73), (anon_sym_trait, ACTIONS 123), (anon_sym_AT, ACTIONS 77),
    (anon_sym_DASH, ACTIONS 79), (anon_sym_PLUS, ACTIONS 79), (anon_sym_ref, ACTIONS 81),
    (anon_sym_var, ACTIONS 81), (anon_sym_not, ACTIONS 83), (anon_sym_TILDE, ACTIONS 79),
    (anon_sym_lambda, ACTIONS 85), (anon_sym_yield, ACTIONS 87), (sym_ellipsis, ACTIONS 89),
    (anon_sym___mlir_type, ACTIONS 91), (sym_integer, ACTIONS 93), (sym_float, ACTIONS 89),
    (anon_sym_await, ACTIONS 95), (sym_true, ACTIONS 93), (sym_false, ACTIONS 93),
    (sym_none, ACTIONS 93), (sym_comment, ACTIONS 3), (sym_line_continuation, ACTIONS 3),
    (sym__dedent, ACTIONS 125), (sym_string_start, ACTIONS 97)]"

definition parse_table_493 :: "(nat \<times> nat) list" where "parse_table_493 = [
    (sym__statement, STATE 927), (sym__simple_statements, STATE 927),
    (sym_import_statement, STATE 11814), (sym_future_import_statement, STATE 11814),
    (sym_import_from_statement, STATE 11814), (sym_print_statement, STATE 11814),
    (sym_assert_statement, STATE 11814), (sym_comptime_assert_statement, STATE 11814),
    (sym_expression_statement, STATE 11814), (sym_tuple_expression, STATE 12425),
    (sym_named_expression, STATE 7969), (sym__named_expression_lhs, STATE 12752),
    (sym_return_statement, STATE 11814), (sym_delete_statement, STATE 11814),
    (sym_raise_statement, STATE 11814), (sym_pass_statement, STATE 11814),
    (sym_break_statement, STATE 11814), (sym_continue_statement, STATE 11814),
    (sym_extension_definition, STATE 927), (sym_mlir_region, STATE 927),
    (sym_comptime_statement, STATE 927), (sym_if_statement, STATE 927),
    (sym_match_statement, STATE 927), (sym_for_statement, STATE 927),
    (sym_while_statement, STATE 927), (sym_try_statement, STATE 927),
    (sym_with_statement, STATE 927), (sym_function_definition, STATE 927),
    (sym_global_statement, STATE 11814), (sym_nonlocal_statement, STATE 11814),
    (sym_exec_statement, STATE 11814), (sym_type_alias_statement, STATE 11814),
    (sym_parameterized_alias_statement, STATE 11814), (sym_class_definition, STATE 927),
    (sym_trait_definition, STATE 927), (sym_decorated_definition, STATE 927),
    (sym_decorator, STATE 3670), (sym_block, STATE 4645), (sym_pattern, STATE 8086),
    (sym_tuple_pattern, STATE 8101), (sym_list_pattern, STATE 8101),
    (sym_list_splat_pattern, STATE 6819), (sym_as_pattern, STATE 7969),
    (sym_expression, STATE 9883), (sym_primary_expression, STATE 7326),
    (sym_comptime_expression, STATE 7017), (sym_transfer_expression, STATE 7017),
    (sym_not_operator, STATE 7969), (sym_boolean_operator, STATE 7969),
    (sym_binary_operator, STATE 7017), (sym_unary_operator, STATE 7017),
    (sym_comparison_operator, STATE 7969), (sym_lambda, STATE 7969),
    (sym_assignment, STATE 12425), (sym_augmented_assignment, STATE 12425),
    (sym_pattern_list, STATE 8578), (sym_yield, STATE 12425), (sym_attribute, STATE 6836),
    (sym_subscript, STATE 6838), (sym_call, STATE 6845), (sym_mlir_type, STATE 7017),
    (sym_list, STATE 7017), (sym_set, STATE 7017), (sym_tuple, STATE 7017),
    (sym_dictionary, STATE 7017), (sym_struct_literal, STATE 7017),
    (sym_list_comprehension, STATE 7017), (sym_dictionary_comprehension, STATE 7017),
    (sym_set_comprehension, STATE 7017), (sym_generator_expression, STATE 7017),
    (sym_parenthesized_expression, STATE 7017), (sym_conditional_expression, STATE 7969),
    (sym_concatenated_string, STATE 7017), (sym_string, STATE 6751), (sym_await, STATE 7017),
    (aux_sym_module_repeat1, STATE 927), (aux_sym_decorated_definition_repeat1, STATE 3670),
    (sym_identifier, ACTIONS 9), (anon_sym_import, ACTIONS 11), (anon_sym_from, ACTIONS 13),
    (anon_sym_LPAREN, ACTIONS 15), (anon_sym_STAR, ACTIONS 17), (anon_sym_print, ACTIONS 19),
    (anon_sym_comptime, ACTIONS 99), (anon_sym_assert, ACTIONS 23),
    (anon_sym___comptime_assert, ACTIONS 25), (anon_sym_return, ACTIONS 27),
    (anon_sym_del, ACTIONS 29), (anon_sym_raise, ACTIONS 31), (anon_sym_pass, ACTIONS 33),
    (anon_sym_break, ACTIONS 35), (anon_sym_continue, ACTIONS 37),
    (anon_sym___extension, ACTIONS 101), (anon_sym___mlir_region, ACTIONS 103),
    (anon_sym_if, ACTIONS 105), (anon_sym_match, ACTIONS 107), (anon_sym_async, ACTIONS 109),
    (anon_sym_for, ACTIONS 111), (anon_sym_while, ACTIONS 113), (anon_sym_try, ACTIONS 115),
    (anon_sym_with, ACTIONS 117), (anon_sym_def, ACTIONS 119), (anon_sym_fn, ACTIONS 119),
    (anon_sym_LBRACK, ACTIONS 59), (anon_sym_LBRACE, ACTIONS 61), (anon_sym_global, ACTIONS 63),
    (anon_sym_nonlocal, ACTIONS 65), (anon_sym_exec, ACTIONS 67), (anon_sym_type, ACTIONS 69),
    (anon_sym_class, ACTIONS 121), (anon_sym_struct, ACTIONS 121), (anon_sym_mut, ACTIONS 73),
    (anon_sym_out, ACTIONS 73), (anon_sym_trait, ACTIONS 123), (anon_sym_AT, ACTIONS 77),
    (anon_sym_DASH, ACTIONS 79), (anon_sym_PLUS, ACTIONS 79), (anon_sym_ref, ACTIONS 81),
    (anon_sym_var, ACTIONS 81), (anon_sym_not, ACTIONS 83), (anon_sym_TILDE, ACTIONS 79),
    (anon_sym_lambda, ACTIONS 85), (anon_sym_yield, ACTIONS 87), (sym_ellipsis, ACTIONS 89),
    (anon_sym___mlir_type, ACTIONS 91), (sym_integer, ACTIONS 93), (sym_float, ACTIONS 89),
    (anon_sym_await, ACTIONS 95), (sym_true, ACTIONS 93), (sym_false, ACTIONS 93),
    (sym_none, ACTIONS 93), (sym_comment, ACTIONS 3), (sym_line_continuation, ACTIONS 3),
    (sym__dedent, ACTIONS 125), (sym_string_start, ACTIONS 97)]"

definition parse_table_494 :: "(nat \<times> nat) list" where "parse_table_494 = [
    (sym__statement, STATE 927), (sym__simple_statements, STATE 927),
    (sym_import_statement, STATE 11814), (sym_future_import_statement, STATE 11814),
    (sym_import_from_statement, STATE 11814), (sym_print_statement, STATE 11814),
    (sym_assert_statement, STATE 11814), (sym_comptime_assert_statement, STATE 11814),
    (sym_expression_statement, STATE 11814), (sym_tuple_expression, STATE 12425),
    (sym_named_expression, STATE 7969), (sym__named_expression_lhs, STATE 12752),
    (sym_return_statement, STATE 11814), (sym_delete_statement, STATE 11814),
    (sym_raise_statement, STATE 11814), (sym_pass_statement, STATE 11814),
    (sym_break_statement, STATE 11814), (sym_continue_statement, STATE 11814),
    (sym_extension_definition, STATE 927), (sym_mlir_region, STATE 927),
    (sym_comptime_statement, STATE 927), (sym_if_statement, STATE 927),
    (sym_match_statement, STATE 927), (sym_for_statement, STATE 927),
    (sym_while_statement, STATE 927), (sym_try_statement, STATE 927),
    (sym_with_statement, STATE 927), (sym_function_definition, STATE 927),
    (sym_global_statement, STATE 11814), (sym_nonlocal_statement, STATE 11814),
    (sym_exec_statement, STATE 11814), (sym_type_alias_statement, STATE 11814),
    (sym_parameterized_alias_statement, STATE 11814), (sym_class_definition, STATE 927),
    (sym_trait_definition, STATE 927), (sym_decorated_definition, STATE 927),
    (sym_decorator, STATE 3670), (sym_block, STATE 4648), (sym_pattern, STATE 8086),
    (sym_tuple_pattern, STATE 8101), (sym_list_pattern, STATE 8101),
    (sym_list_splat_pattern, STATE 6819), (sym_as_pattern, STATE 7969),
    (sym_expression, STATE 9883), (sym_primary_expression, STATE 7326),
    (sym_comptime_expression, STATE 7017), (sym_transfer_expression, STATE 7017),
    (sym_not_operator, STATE 7969), (sym_boolean_operator, STATE 7969),
    (sym_binary_operator, STATE 7017), (sym_unary_operator, STATE 7017),
    (sym_comparison_operator, STATE 7969), (sym_lambda, STATE 7969),
    (sym_assignment, STATE 12425), (sym_augmented_assignment, STATE 12425),
    (sym_pattern_list, STATE 8578), (sym_yield, STATE 12425), (sym_attribute, STATE 6836),
    (sym_subscript, STATE 6838), (sym_call, STATE 6845), (sym_mlir_type, STATE 7017),
    (sym_list, STATE 7017), (sym_set, STATE 7017), (sym_tuple, STATE 7017),
    (sym_dictionary, STATE 7017), (sym_struct_literal, STATE 7017),
    (sym_list_comprehension, STATE 7017), (sym_dictionary_comprehension, STATE 7017),
    (sym_set_comprehension, STATE 7017), (sym_generator_expression, STATE 7017),
    (sym_parenthesized_expression, STATE 7017), (sym_conditional_expression, STATE 7969),
    (sym_concatenated_string, STATE 7017), (sym_string, STATE 6751), (sym_await, STATE 7017),
    (aux_sym_module_repeat1, STATE 927), (aux_sym_decorated_definition_repeat1, STATE 3670),
    (sym_identifier, ACTIONS 9), (anon_sym_import, ACTIONS 11), (anon_sym_from, ACTIONS 13),
    (anon_sym_LPAREN, ACTIONS 15), (anon_sym_STAR, ACTIONS 17), (anon_sym_print, ACTIONS 19),
    (anon_sym_comptime, ACTIONS 99), (anon_sym_assert, ACTIONS 23),
    (anon_sym___comptime_assert, ACTIONS 25), (anon_sym_return, ACTIONS 27),
    (anon_sym_del, ACTIONS 29), (anon_sym_raise, ACTIONS 31), (anon_sym_pass, ACTIONS 33),
    (anon_sym_break, ACTIONS 35), (anon_sym_continue, ACTIONS 37),
    (anon_sym___extension, ACTIONS 101), (anon_sym___mlir_region, ACTIONS 103),
    (anon_sym_if, ACTIONS 105), (anon_sym_match, ACTIONS 107), (anon_sym_async, ACTIONS 109),
    (anon_sym_for, ACTIONS 111), (anon_sym_while, ACTIONS 113), (anon_sym_try, ACTIONS 115),
    (anon_sym_with, ACTIONS 117), (anon_sym_def, ACTIONS 119), (anon_sym_fn, ACTIONS 119),
    (anon_sym_LBRACK, ACTIONS 59), (anon_sym_LBRACE, ACTIONS 61), (anon_sym_global, ACTIONS 63),
    (anon_sym_nonlocal, ACTIONS 65), (anon_sym_exec, ACTIONS 67), (anon_sym_type, ACTIONS 69),
    (anon_sym_class, ACTIONS 121), (anon_sym_struct, ACTIONS 121), (anon_sym_mut, ACTIONS 73),
    (anon_sym_out, ACTIONS 73), (anon_sym_trait, ACTIONS 123), (anon_sym_AT, ACTIONS 77),
    (anon_sym_DASH, ACTIONS 79), (anon_sym_PLUS, ACTIONS 79), (anon_sym_ref, ACTIONS 81),
    (anon_sym_var, ACTIONS 81), (anon_sym_not, ACTIONS 83), (anon_sym_TILDE, ACTIONS 79),
    (anon_sym_lambda, ACTIONS 85), (anon_sym_yield, ACTIONS 87), (sym_ellipsis, ACTIONS 89),
    (anon_sym___mlir_type, ACTIONS 91), (sym_integer, ACTIONS 93), (sym_float, ACTIONS 89),
    (anon_sym_await, ACTIONS 95), (sym_true, ACTIONS 93), (sym_false, ACTIONS 93),
    (sym_none, ACTIONS 93), (sym_comment, ACTIONS 3), (sym_line_continuation, ACTIONS 3),
    (sym__dedent, ACTIONS 125), (sym_string_start, ACTIONS 97)]"

definition parse_table_495 :: "(nat \<times> nat) list" where "parse_table_495 = [
    (sym__statement, STATE 927), (sym__simple_statements, STATE 927),
    (sym_import_statement, STATE 11814), (sym_future_import_statement, STATE 11814),
    (sym_import_from_statement, STATE 11814), (sym_print_statement, STATE 11814),
    (sym_assert_statement, STATE 11814), (sym_comptime_assert_statement, STATE 11814),
    (sym_expression_statement, STATE 11814), (sym_tuple_expression, STATE 12425),
    (sym_named_expression, STATE 7969), (sym__named_expression_lhs, STATE 12752),
    (sym_return_statement, STATE 11814), (sym_delete_statement, STATE 11814),
    (sym_raise_statement, STATE 11814), (sym_pass_statement, STATE 11814),
    (sym_break_statement, STATE 11814), (sym_continue_statement, STATE 11814),
    (sym_extension_definition, STATE 927), (sym_mlir_region, STATE 927),
    (sym_comptime_statement, STATE 927), (sym_if_statement, STATE 927),
    (sym_match_statement, STATE 927), (sym_for_statement, STATE 927),
    (sym_while_statement, STATE 927), (sym_try_statement, STATE 927),
    (sym_with_statement, STATE 927), (sym_function_definition, STATE 927),
    (sym_global_statement, STATE 11814), (sym_nonlocal_statement, STATE 11814),
    (sym_exec_statement, STATE 11814), (sym_type_alias_statement, STATE 11814),
    (sym_parameterized_alias_statement, STATE 11814), (sym_class_definition, STATE 927),
    (sym_trait_definition, STATE 927), (sym_decorated_definition, STATE 927),
    (sym_decorator, STATE 3670), (sym_block, STATE 4653), (sym_pattern, STATE 8086),
    (sym_tuple_pattern, STATE 8101), (sym_list_pattern, STATE 8101),
    (sym_list_splat_pattern, STATE 6819), (sym_as_pattern, STATE 7969),
    (sym_expression, STATE 9883), (sym_primary_expression, STATE 7326),
    (sym_comptime_expression, STATE 7017), (sym_transfer_expression, STATE 7017),
    (sym_not_operator, STATE 7969), (sym_boolean_operator, STATE 7969),
    (sym_binary_operator, STATE 7017), (sym_unary_operator, STATE 7017),
    (sym_comparison_operator, STATE 7969), (sym_lambda, STATE 7969),
    (sym_assignment, STATE 12425), (sym_augmented_assignment, STATE 12425),
    (sym_pattern_list, STATE 8578), (sym_yield, STATE 12425), (sym_attribute, STATE 6836),
    (sym_subscript, STATE 6838), (sym_call, STATE 6845), (sym_mlir_type, STATE 7017),
    (sym_list, STATE 7017), (sym_set, STATE 7017), (sym_tuple, STATE 7017),
    (sym_dictionary, STATE 7017), (sym_struct_literal, STATE 7017),
    (sym_list_comprehension, STATE 7017), (sym_dictionary_comprehension, STATE 7017),
    (sym_set_comprehension, STATE 7017), (sym_generator_expression, STATE 7017),
    (sym_parenthesized_expression, STATE 7017), (sym_conditional_expression, STATE 7969),
    (sym_concatenated_string, STATE 7017), (sym_string, STATE 6751), (sym_await, STATE 7017),
    (aux_sym_module_repeat1, STATE 927), (aux_sym_decorated_definition_repeat1, STATE 3670),
    (sym_identifier, ACTIONS 9), (anon_sym_import, ACTIONS 11), (anon_sym_from, ACTIONS 13),
    (anon_sym_LPAREN, ACTIONS 15), (anon_sym_STAR, ACTIONS 17), (anon_sym_print, ACTIONS 19),
    (anon_sym_comptime, ACTIONS 99), (anon_sym_assert, ACTIONS 23),
    (anon_sym___comptime_assert, ACTIONS 25), (anon_sym_return, ACTIONS 27),
    (anon_sym_del, ACTIONS 29), (anon_sym_raise, ACTIONS 31), (anon_sym_pass, ACTIONS 33),
    (anon_sym_break, ACTIONS 35), (anon_sym_continue, ACTIONS 37),
    (anon_sym___extension, ACTIONS 101), (anon_sym___mlir_region, ACTIONS 103),
    (anon_sym_if, ACTIONS 105), (anon_sym_match, ACTIONS 107), (anon_sym_async, ACTIONS 109),
    (anon_sym_for, ACTIONS 111), (anon_sym_while, ACTIONS 113), (anon_sym_try, ACTIONS 115),
    (anon_sym_with, ACTIONS 117), (anon_sym_def, ACTIONS 119), (anon_sym_fn, ACTIONS 119),
    (anon_sym_LBRACK, ACTIONS 59), (anon_sym_LBRACE, ACTIONS 61), (anon_sym_global, ACTIONS 63),
    (anon_sym_nonlocal, ACTIONS 65), (anon_sym_exec, ACTIONS 67), (anon_sym_type, ACTIONS 69),
    (anon_sym_class, ACTIONS 121), (anon_sym_struct, ACTIONS 121), (anon_sym_mut, ACTIONS 73),
    (anon_sym_out, ACTIONS 73), (anon_sym_trait, ACTIONS 123), (anon_sym_AT, ACTIONS 77),
    (anon_sym_DASH, ACTIONS 79), (anon_sym_PLUS, ACTIONS 79), (anon_sym_ref, ACTIONS 81),
    (anon_sym_var, ACTIONS 81), (anon_sym_not, ACTIONS 83), (anon_sym_TILDE, ACTIONS 79),
    (anon_sym_lambda, ACTIONS 85), (anon_sym_yield, ACTIONS 87), (sym_ellipsis, ACTIONS 89),
    (anon_sym___mlir_type, ACTIONS 91), (sym_integer, ACTIONS 93), (sym_float, ACTIONS 89),
    (anon_sym_await, ACTIONS 95), (sym_true, ACTIONS 93), (sym_false, ACTIONS 93),
    (sym_none, ACTIONS 93), (sym_comment, ACTIONS 3), (sym_line_continuation, ACTIONS 3),
    (sym__dedent, ACTIONS 125), (sym_string_start, ACTIONS 97)]"

definition parse_table_496 :: "(nat \<times> nat) list" where "parse_table_496 = [
    (sym__statement, STATE 927), (sym__simple_statements, STATE 927),
    (sym_import_statement, STATE 11814), (sym_future_import_statement, STATE 11814),
    (sym_import_from_statement, STATE 11814), (sym_print_statement, STATE 11814),
    (sym_assert_statement, STATE 11814), (sym_comptime_assert_statement, STATE 11814),
    (sym_expression_statement, STATE 11814), (sym_tuple_expression, STATE 12425),
    (sym_named_expression, STATE 7969), (sym__named_expression_lhs, STATE 12752),
    (sym_return_statement, STATE 11814), (sym_delete_statement, STATE 11814),
    (sym_raise_statement, STATE 11814), (sym_pass_statement, STATE 11814),
    (sym_break_statement, STATE 11814), (sym_continue_statement, STATE 11814),
    (sym_extension_definition, STATE 927), (sym_mlir_region, STATE 927),
    (sym_comptime_statement, STATE 927), (sym_if_statement, STATE 927),
    (sym_match_statement, STATE 927), (sym_for_statement, STATE 927),
    (sym_while_statement, STATE 927), (sym_try_statement, STATE 927),
    (sym_with_statement, STATE 927), (sym_function_definition, STATE 927),
    (sym_global_statement, STATE 11814), (sym_nonlocal_statement, STATE 11814),
    (sym_exec_statement, STATE 11814), (sym_type_alias_statement, STATE 11814),
    (sym_parameterized_alias_statement, STATE 11814), (sym_class_definition, STATE 927),
    (sym_trait_definition, STATE 927), (sym_decorated_definition, STATE 927),
    (sym_decorator, STATE 3670), (sym_block, STATE 4655), (sym_pattern, STATE 8086),
    (sym_tuple_pattern, STATE 8101), (sym_list_pattern, STATE 8101),
    (sym_list_splat_pattern, STATE 6819), (sym_as_pattern, STATE 7969),
    (sym_expression, STATE 9883), (sym_primary_expression, STATE 7326),
    (sym_comptime_expression, STATE 7017), (sym_transfer_expression, STATE 7017),
    (sym_not_operator, STATE 7969), (sym_boolean_operator, STATE 7969),
    (sym_binary_operator, STATE 7017), (sym_unary_operator, STATE 7017),
    (sym_comparison_operator, STATE 7969), (sym_lambda, STATE 7969),
    (sym_assignment, STATE 12425), (sym_augmented_assignment, STATE 12425),
    (sym_pattern_list, STATE 8578), (sym_yield, STATE 12425), (sym_attribute, STATE 6836),
    (sym_subscript, STATE 6838), (sym_call, STATE 6845), (sym_mlir_type, STATE 7017),
    (sym_list, STATE 7017), (sym_set, STATE 7017), (sym_tuple, STATE 7017),
    (sym_dictionary, STATE 7017), (sym_struct_literal, STATE 7017),
    (sym_list_comprehension, STATE 7017), (sym_dictionary_comprehension, STATE 7017),
    (sym_set_comprehension, STATE 7017), (sym_generator_expression, STATE 7017),
    (sym_parenthesized_expression, STATE 7017), (sym_conditional_expression, STATE 7969),
    (sym_concatenated_string, STATE 7017), (sym_string, STATE 6751), (sym_await, STATE 7017),
    (aux_sym_module_repeat1, STATE 927), (aux_sym_decorated_definition_repeat1, STATE 3670),
    (sym_identifier, ACTIONS 9), (anon_sym_import, ACTIONS 11), (anon_sym_from, ACTIONS 13),
    (anon_sym_LPAREN, ACTIONS 15), (anon_sym_STAR, ACTIONS 17), (anon_sym_print, ACTIONS 19),
    (anon_sym_comptime, ACTIONS 99), (anon_sym_assert, ACTIONS 23),
    (anon_sym___comptime_assert, ACTIONS 25), (anon_sym_return, ACTIONS 27),
    (anon_sym_del, ACTIONS 29), (anon_sym_raise, ACTIONS 31), (anon_sym_pass, ACTIONS 33),
    (anon_sym_break, ACTIONS 35), (anon_sym_continue, ACTIONS 37),
    (anon_sym___extension, ACTIONS 101), (anon_sym___mlir_region, ACTIONS 103),
    (anon_sym_if, ACTIONS 105), (anon_sym_match, ACTIONS 107), (anon_sym_async, ACTIONS 109),
    (anon_sym_for, ACTIONS 111), (anon_sym_while, ACTIONS 113), (anon_sym_try, ACTIONS 115),
    (anon_sym_with, ACTIONS 117), (anon_sym_def, ACTIONS 119), (anon_sym_fn, ACTIONS 119),
    (anon_sym_LBRACK, ACTIONS 59), (anon_sym_LBRACE, ACTIONS 61), (anon_sym_global, ACTIONS 63),
    (anon_sym_nonlocal, ACTIONS 65), (anon_sym_exec, ACTIONS 67), (anon_sym_type, ACTIONS 69),
    (anon_sym_class, ACTIONS 121), (anon_sym_struct, ACTIONS 121), (anon_sym_mut, ACTIONS 73),
    (anon_sym_out, ACTIONS 73), (anon_sym_trait, ACTIONS 123), (anon_sym_AT, ACTIONS 77),
    (anon_sym_DASH, ACTIONS 79), (anon_sym_PLUS, ACTIONS 79), (anon_sym_ref, ACTIONS 81),
    (anon_sym_var, ACTIONS 81), (anon_sym_not, ACTIONS 83), (anon_sym_TILDE, ACTIONS 79),
    (anon_sym_lambda, ACTIONS 85), (anon_sym_yield, ACTIONS 87), (sym_ellipsis, ACTIONS 89),
    (anon_sym___mlir_type, ACTIONS 91), (sym_integer, ACTIONS 93), (sym_float, ACTIONS 89),
    (anon_sym_await, ACTIONS 95), (sym_true, ACTIONS 93), (sym_false, ACTIONS 93),
    (sym_none, ACTIONS 93), (sym_comment, ACTIONS 3), (sym_line_continuation, ACTIONS 3),
    (sym__dedent, ACTIONS 125), (sym_string_start, ACTIONS 97)]"

definition parse_table_497 :: "(nat \<times> nat) list" where "parse_table_497 = [
    (sym__statement, STATE 927), (sym__simple_statements, STATE 927),
    (sym_import_statement, STATE 11814), (sym_future_import_statement, STATE 11814),
    (sym_import_from_statement, STATE 11814), (sym_print_statement, STATE 11814),
    (sym_assert_statement, STATE 11814), (sym_comptime_assert_statement, STATE 11814),
    (sym_expression_statement, STATE 11814), (sym_tuple_expression, STATE 12425),
    (sym_named_expression, STATE 7969), (sym__named_expression_lhs, STATE 12752),
    (sym_return_statement, STATE 11814), (sym_delete_statement, STATE 11814),
    (sym_raise_statement, STATE 11814), (sym_pass_statement, STATE 11814),
    (sym_break_statement, STATE 11814), (sym_continue_statement, STATE 11814),
    (sym_extension_definition, STATE 927), (sym_mlir_region, STATE 927),
    (sym_comptime_statement, STATE 927), (sym_if_statement, STATE 927),
    (sym_match_statement, STATE 927), (sym_for_statement, STATE 927),
    (sym_while_statement, STATE 927), (sym_try_statement, STATE 927),
    (sym_with_statement, STATE 927), (sym_function_definition, STATE 927),
    (sym_global_statement, STATE 11814), (sym_nonlocal_statement, STATE 11814),
    (sym_exec_statement, STATE 11814), (sym_type_alias_statement, STATE 11814),
    (sym_parameterized_alias_statement, STATE 11814), (sym_class_definition, STATE 927),
    (sym_trait_definition, STATE 927), (sym_decorated_definition, STATE 927),
    (sym_decorator, STATE 3670), (sym_block, STATE 4663), (sym_pattern, STATE 8086),
    (sym_tuple_pattern, STATE 8101), (sym_list_pattern, STATE 8101),
    (sym_list_splat_pattern, STATE 6819), (sym_as_pattern, STATE 7969),
    (sym_expression, STATE 9883), (sym_primary_expression, STATE 7326),
    (sym_comptime_expression, STATE 7017), (sym_transfer_expression, STATE 7017),
    (sym_not_operator, STATE 7969), (sym_boolean_operator, STATE 7969),
    (sym_binary_operator, STATE 7017), (sym_unary_operator, STATE 7017),
    (sym_comparison_operator, STATE 7969), (sym_lambda, STATE 7969),
    (sym_assignment, STATE 12425), (sym_augmented_assignment, STATE 12425),
    (sym_pattern_list, STATE 8578), (sym_yield, STATE 12425), (sym_attribute, STATE 6836),
    (sym_subscript, STATE 6838), (sym_call, STATE 6845), (sym_mlir_type, STATE 7017),
    (sym_list, STATE 7017), (sym_set, STATE 7017), (sym_tuple, STATE 7017),
    (sym_dictionary, STATE 7017), (sym_struct_literal, STATE 7017),
    (sym_list_comprehension, STATE 7017), (sym_dictionary_comprehension, STATE 7017),
    (sym_set_comprehension, STATE 7017), (sym_generator_expression, STATE 7017),
    (sym_parenthesized_expression, STATE 7017), (sym_conditional_expression, STATE 7969),
    (sym_concatenated_string, STATE 7017), (sym_string, STATE 6751), (sym_await, STATE 7017),
    (aux_sym_module_repeat1, STATE 927), (aux_sym_decorated_definition_repeat1, STATE 3670),
    (sym_identifier, ACTIONS 9), (anon_sym_import, ACTIONS 11), (anon_sym_from, ACTIONS 13),
    (anon_sym_LPAREN, ACTIONS 15), (anon_sym_STAR, ACTIONS 17), (anon_sym_print, ACTIONS 19),
    (anon_sym_comptime, ACTIONS 99), (anon_sym_assert, ACTIONS 23),
    (anon_sym___comptime_assert, ACTIONS 25), (anon_sym_return, ACTIONS 27),
    (anon_sym_del, ACTIONS 29), (anon_sym_raise, ACTIONS 31), (anon_sym_pass, ACTIONS 33),
    (anon_sym_break, ACTIONS 35), (anon_sym_continue, ACTIONS 37),
    (anon_sym___extension, ACTIONS 101), (anon_sym___mlir_region, ACTIONS 103),
    (anon_sym_if, ACTIONS 105), (anon_sym_match, ACTIONS 107), (anon_sym_async, ACTIONS 109),
    (anon_sym_for, ACTIONS 111), (anon_sym_while, ACTIONS 113), (anon_sym_try, ACTIONS 115),
    (anon_sym_with, ACTIONS 117), (anon_sym_def, ACTIONS 119), (anon_sym_fn, ACTIONS 119),
    (anon_sym_LBRACK, ACTIONS 59), (anon_sym_LBRACE, ACTIONS 61), (anon_sym_global, ACTIONS 63),
    (anon_sym_nonlocal, ACTIONS 65), (anon_sym_exec, ACTIONS 67), (anon_sym_type, ACTIONS 69),
    (anon_sym_class, ACTIONS 121), (anon_sym_struct, ACTIONS 121), (anon_sym_mut, ACTIONS 73),
    (anon_sym_out, ACTIONS 73), (anon_sym_trait, ACTIONS 123), (anon_sym_AT, ACTIONS 77),
    (anon_sym_DASH, ACTIONS 79), (anon_sym_PLUS, ACTIONS 79), (anon_sym_ref, ACTIONS 81),
    (anon_sym_var, ACTIONS 81), (anon_sym_not, ACTIONS 83), (anon_sym_TILDE, ACTIONS 79),
    (anon_sym_lambda, ACTIONS 85), (anon_sym_yield, ACTIONS 87), (sym_ellipsis, ACTIONS 89),
    (anon_sym___mlir_type, ACTIONS 91), (sym_integer, ACTIONS 93), (sym_float, ACTIONS 89),
    (anon_sym_await, ACTIONS 95), (sym_true, ACTIONS 93), (sym_false, ACTIONS 93),
    (sym_none, ACTIONS 93), (sym_comment, ACTIONS 3), (sym_line_continuation, ACTIONS 3),
    (sym__dedent, ACTIONS 125), (sym_string_start, ACTIONS 97)]"

definition parse_table_498 :: "(nat \<times> nat) list" where "parse_table_498 = [
    (sym__statement, STATE 927), (sym__simple_statements, STATE 927),
    (sym_import_statement, STATE 11814), (sym_future_import_statement, STATE 11814),
    (sym_import_from_statement, STATE 11814), (sym_print_statement, STATE 11814),
    (sym_assert_statement, STATE 11814), (sym_comptime_assert_statement, STATE 11814),
    (sym_expression_statement, STATE 11814), (sym_tuple_expression, STATE 12425),
    (sym_named_expression, STATE 7969), (sym__named_expression_lhs, STATE 12752),
    (sym_return_statement, STATE 11814), (sym_delete_statement, STATE 11814),
    (sym_raise_statement, STATE 11814), (sym_pass_statement, STATE 11814),
    (sym_break_statement, STATE 11814), (sym_continue_statement, STATE 11814),
    (sym_extension_definition, STATE 927), (sym_mlir_region, STATE 927),
    (sym_comptime_statement, STATE 927), (sym_if_statement, STATE 927),
    (sym_match_statement, STATE 927), (sym_for_statement, STATE 927),
    (sym_while_statement, STATE 927), (sym_try_statement, STATE 927),
    (sym_with_statement, STATE 927), (sym_function_definition, STATE 927),
    (sym_global_statement, STATE 11814), (sym_nonlocal_statement, STATE 11814),
    (sym_exec_statement, STATE 11814), (sym_type_alias_statement, STATE 11814),
    (sym_parameterized_alias_statement, STATE 11814), (sym_class_definition, STATE 927),
    (sym_trait_definition, STATE 927), (sym_decorated_definition, STATE 927),
    (sym_decorator, STATE 3670), (sym_block, STATE 4665), (sym_pattern, STATE 8086),
    (sym_tuple_pattern, STATE 8101), (sym_list_pattern, STATE 8101),
    (sym_list_splat_pattern, STATE 6819), (sym_as_pattern, STATE 7969),
    (sym_expression, STATE 9883), (sym_primary_expression, STATE 7326),
    (sym_comptime_expression, STATE 7017), (sym_transfer_expression, STATE 7017),
    (sym_not_operator, STATE 7969), (sym_boolean_operator, STATE 7969),
    (sym_binary_operator, STATE 7017), (sym_unary_operator, STATE 7017),
    (sym_comparison_operator, STATE 7969), (sym_lambda, STATE 7969),
    (sym_assignment, STATE 12425), (sym_augmented_assignment, STATE 12425),
    (sym_pattern_list, STATE 8578), (sym_yield, STATE 12425), (sym_attribute, STATE 6836),
    (sym_subscript, STATE 6838), (sym_call, STATE 6845), (sym_mlir_type, STATE 7017),
    (sym_list, STATE 7017), (sym_set, STATE 7017), (sym_tuple, STATE 7017),
    (sym_dictionary, STATE 7017), (sym_struct_literal, STATE 7017),
    (sym_list_comprehension, STATE 7017), (sym_dictionary_comprehension, STATE 7017),
    (sym_set_comprehension, STATE 7017), (sym_generator_expression, STATE 7017),
    (sym_parenthesized_expression, STATE 7017), (sym_conditional_expression, STATE 7969),
    (sym_concatenated_string, STATE 7017), (sym_string, STATE 6751), (sym_await, STATE 7017),
    (aux_sym_module_repeat1, STATE 927), (aux_sym_decorated_definition_repeat1, STATE 3670),
    (sym_identifier, ACTIONS 9), (anon_sym_import, ACTIONS 11), (anon_sym_from, ACTIONS 13),
    (anon_sym_LPAREN, ACTIONS 15), (anon_sym_STAR, ACTIONS 17), (anon_sym_print, ACTIONS 19),
    (anon_sym_comptime, ACTIONS 99), (anon_sym_assert, ACTIONS 23),
    (anon_sym___comptime_assert, ACTIONS 25), (anon_sym_return, ACTIONS 27),
    (anon_sym_del, ACTIONS 29), (anon_sym_raise, ACTIONS 31), (anon_sym_pass, ACTIONS 33),
    (anon_sym_break, ACTIONS 35), (anon_sym_continue, ACTIONS 37),
    (anon_sym___extension, ACTIONS 101), (anon_sym___mlir_region, ACTIONS 103),
    (anon_sym_if, ACTIONS 105), (anon_sym_match, ACTIONS 107), (anon_sym_async, ACTIONS 109),
    (anon_sym_for, ACTIONS 111), (anon_sym_while, ACTIONS 113), (anon_sym_try, ACTIONS 115),
    (anon_sym_with, ACTIONS 117), (anon_sym_def, ACTIONS 119), (anon_sym_fn, ACTIONS 119),
    (anon_sym_LBRACK, ACTIONS 59), (anon_sym_LBRACE, ACTIONS 61), (anon_sym_global, ACTIONS 63),
    (anon_sym_nonlocal, ACTIONS 65), (anon_sym_exec, ACTIONS 67), (anon_sym_type, ACTIONS 69),
    (anon_sym_class, ACTIONS 121), (anon_sym_struct, ACTIONS 121), (anon_sym_mut, ACTIONS 73),
    (anon_sym_out, ACTIONS 73), (anon_sym_trait, ACTIONS 123), (anon_sym_AT, ACTIONS 77),
    (anon_sym_DASH, ACTIONS 79), (anon_sym_PLUS, ACTIONS 79), (anon_sym_ref, ACTIONS 81),
    (anon_sym_var, ACTIONS 81), (anon_sym_not, ACTIONS 83), (anon_sym_TILDE, ACTIONS 79),
    (anon_sym_lambda, ACTIONS 85), (anon_sym_yield, ACTIONS 87), (sym_ellipsis, ACTIONS 89),
    (anon_sym___mlir_type, ACTIONS 91), (sym_integer, ACTIONS 93), (sym_float, ACTIONS 89),
    (anon_sym_await, ACTIONS 95), (sym_true, ACTIONS 93), (sym_false, ACTIONS 93),
    (sym_none, ACTIONS 93), (sym_comment, ACTIONS 3), (sym_line_continuation, ACTIONS 3),
    (sym__dedent, ACTIONS 125), (sym_string_start, ACTIONS 97)]"

definition parse_table_499 :: "(nat \<times> nat) list" where "parse_table_499 = [
    (sym__statement, STATE 927), (sym__simple_statements, STATE 927),
    (sym_import_statement, STATE 11814), (sym_future_import_statement, STATE 11814),
    (sym_import_from_statement, STATE 11814), (sym_print_statement, STATE 11814),
    (sym_assert_statement, STATE 11814), (sym_comptime_assert_statement, STATE 11814),
    (sym_expression_statement, STATE 11814), (sym_tuple_expression, STATE 12425),
    (sym_named_expression, STATE 7969), (sym__named_expression_lhs, STATE 12752),
    (sym_return_statement, STATE 11814), (sym_delete_statement, STATE 11814),
    (sym_raise_statement, STATE 11814), (sym_pass_statement, STATE 11814),
    (sym_break_statement, STATE 11814), (sym_continue_statement, STATE 11814),
    (sym_extension_definition, STATE 927), (sym_mlir_region, STATE 927),
    (sym_comptime_statement, STATE 927), (sym_if_statement, STATE 927),
    (sym_match_statement, STATE 927), (sym_for_statement, STATE 927),
    (sym_while_statement, STATE 927), (sym_try_statement, STATE 927),
    (sym_with_statement, STATE 927), (sym_function_definition, STATE 927),
    (sym_global_statement, STATE 11814), (sym_nonlocal_statement, STATE 11814),
    (sym_exec_statement, STATE 11814), (sym_type_alias_statement, STATE 11814),
    (sym_parameterized_alias_statement, STATE 11814), (sym_class_definition, STATE 927),
    (sym_trait_definition, STATE 927), (sym_decorated_definition, STATE 927),
    (sym_decorator, STATE 3670), (sym_block, STATE 4290), (sym_pattern, STATE 8086),
    (sym_tuple_pattern, STATE 8101), (sym_list_pattern, STATE 8101),
    (sym_list_splat_pattern, STATE 6819), (sym_as_pattern, STATE 7969),
    (sym_expression, STATE 9883), (sym_primary_expression, STATE 7326),
    (sym_comptime_expression, STATE 7017), (sym_transfer_expression, STATE 7017),
    (sym_not_operator, STATE 7969), (sym_boolean_operator, STATE 7969),
    (sym_binary_operator, STATE 7017), (sym_unary_operator, STATE 7017),
    (sym_comparison_operator, STATE 7969), (sym_lambda, STATE 7969),
    (sym_assignment, STATE 12425), (sym_augmented_assignment, STATE 12425),
    (sym_pattern_list, STATE 8578), (sym_yield, STATE 12425), (sym_attribute, STATE 6836),
    (sym_subscript, STATE 6838), (sym_call, STATE 6845), (sym_mlir_type, STATE 7017),
    (sym_list, STATE 7017), (sym_set, STATE 7017), (sym_tuple, STATE 7017),
    (sym_dictionary, STATE 7017), (sym_struct_literal, STATE 7017),
    (sym_list_comprehension, STATE 7017), (sym_dictionary_comprehension, STATE 7017),
    (sym_set_comprehension, STATE 7017), (sym_generator_expression, STATE 7017),
    (sym_parenthesized_expression, STATE 7017), (sym_conditional_expression, STATE 7969),
    (sym_concatenated_string, STATE 7017), (sym_string, STATE 6751), (sym_await, STATE 7017),
    (aux_sym_module_repeat1, STATE 927), (aux_sym_decorated_definition_repeat1, STATE 3670),
    (sym_identifier, ACTIONS 9), (anon_sym_import, ACTIONS 11), (anon_sym_from, ACTIONS 13),
    (anon_sym_LPAREN, ACTIONS 15), (anon_sym_STAR, ACTIONS 17), (anon_sym_print, ACTIONS 19),
    (anon_sym_comptime, ACTIONS 99), (anon_sym_assert, ACTIONS 23),
    (anon_sym___comptime_assert, ACTIONS 25), (anon_sym_return, ACTIONS 27),
    (anon_sym_del, ACTIONS 29), (anon_sym_raise, ACTIONS 31), (anon_sym_pass, ACTIONS 33),
    (anon_sym_break, ACTIONS 35), (anon_sym_continue, ACTIONS 37),
    (anon_sym___extension, ACTIONS 101), (anon_sym___mlir_region, ACTIONS 103),
    (anon_sym_if, ACTIONS 105), (anon_sym_match, ACTIONS 107), (anon_sym_async, ACTIONS 109),
    (anon_sym_for, ACTIONS 111), (anon_sym_while, ACTIONS 113), (anon_sym_try, ACTIONS 115),
    (anon_sym_with, ACTIONS 117), (anon_sym_def, ACTIONS 119), (anon_sym_fn, ACTIONS 119),
    (anon_sym_LBRACK, ACTIONS 59), (anon_sym_LBRACE, ACTIONS 61), (anon_sym_global, ACTIONS 63),
    (anon_sym_nonlocal, ACTIONS 65), (anon_sym_exec, ACTIONS 67), (anon_sym_type, ACTIONS 69),
    (anon_sym_class, ACTIONS 121), (anon_sym_struct, ACTIONS 121), (anon_sym_mut, ACTIONS 73),
    (anon_sym_out, ACTIONS 73), (anon_sym_trait, ACTIONS 123), (anon_sym_AT, ACTIONS 77),
    (anon_sym_DASH, ACTIONS 79), (anon_sym_PLUS, ACTIONS 79), (anon_sym_ref, ACTIONS 81),
    (anon_sym_var, ACTIONS 81), (anon_sym_not, ACTIONS 83), (anon_sym_TILDE, ACTIONS 79),
    (anon_sym_lambda, ACTIONS 85), (anon_sym_yield, ACTIONS 87), (sym_ellipsis, ACTIONS 89),
    (anon_sym___mlir_type, ACTIONS 91), (sym_integer, ACTIONS 93), (sym_float, ACTIONS 89),
    (anon_sym_await, ACTIONS 95), (sym_true, ACTIONS 93), (sym_false, ACTIONS 93),
    (sym_none, ACTIONS 93), (sym_comment, ACTIONS 3), (sym_line_continuation, ACTIONS 3),
    (sym__dedent, ACTIONS 125), (sym_string_start, ACTIONS 97)]"

definition parse_table_500 :: "(nat \<times> nat) list" where "parse_table_500 = [
    (sym__statement, STATE 927), (sym__simple_statements, STATE 927),
    (sym_import_statement, STATE 11814), (sym_future_import_statement, STATE 11814),
    (sym_import_from_statement, STATE 11814), (sym_print_statement, STATE 11814),
    (sym_assert_statement, STATE 11814), (sym_comptime_assert_statement, STATE 11814),
    (sym_expression_statement, STATE 11814), (sym_tuple_expression, STATE 12425),
    (sym_named_expression, STATE 7969), (sym__named_expression_lhs, STATE 12752),
    (sym_return_statement, STATE 11814), (sym_delete_statement, STATE 11814),
    (sym_raise_statement, STATE 11814), (sym_pass_statement, STATE 11814),
    (sym_break_statement, STATE 11814), (sym_continue_statement, STATE 11814),
    (sym_extension_definition, STATE 927), (sym_mlir_region, STATE 927),
    (sym_comptime_statement, STATE 927), (sym_if_statement, STATE 927),
    (sym_match_statement, STATE 927), (sym_for_statement, STATE 927),
    (sym_while_statement, STATE 927), (sym_try_statement, STATE 927),
    (sym_with_statement, STATE 927), (sym_function_definition, STATE 927),
    (sym_global_statement, STATE 11814), (sym_nonlocal_statement, STATE 11814),
    (sym_exec_statement, STATE 11814), (sym_type_alias_statement, STATE 11814),
    (sym_parameterized_alias_statement, STATE 11814), (sym_class_definition, STATE 927),
    (sym_trait_definition, STATE 927), (sym_decorated_definition, STATE 927),
    (sym_decorator, STATE 3670), (sym_block, STATE 4301), (sym_pattern, STATE 8086),
    (sym_tuple_pattern, STATE 8101), (sym_list_pattern, STATE 8101),
    (sym_list_splat_pattern, STATE 6819), (sym_as_pattern, STATE 7969),
    (sym_expression, STATE 9883), (sym_primary_expression, STATE 7326),
    (sym_comptime_expression, STATE 7017), (sym_transfer_expression, STATE 7017),
    (sym_not_operator, STATE 7969), (sym_boolean_operator, STATE 7969),
    (sym_binary_operator, STATE 7017), (sym_unary_operator, STATE 7017),
    (sym_comparison_operator, STATE 7969), (sym_lambda, STATE 7969),
    (sym_assignment, STATE 12425), (sym_augmented_assignment, STATE 12425),
    (sym_pattern_list, STATE 8578), (sym_yield, STATE 12425), (sym_attribute, STATE 6836),
    (sym_subscript, STATE 6838), (sym_call, STATE 6845), (sym_mlir_type, STATE 7017),
    (sym_list, STATE 7017), (sym_set, STATE 7017), (sym_tuple, STATE 7017),
    (sym_dictionary, STATE 7017), (sym_struct_literal, STATE 7017),
    (sym_list_comprehension, STATE 7017), (sym_dictionary_comprehension, STATE 7017),
    (sym_set_comprehension, STATE 7017), (sym_generator_expression, STATE 7017),
    (sym_parenthesized_expression, STATE 7017), (sym_conditional_expression, STATE 7969),
    (sym_concatenated_string, STATE 7017), (sym_string, STATE 6751), (sym_await, STATE 7017),
    (aux_sym_module_repeat1, STATE 927), (aux_sym_decorated_definition_repeat1, STATE 3670),
    (sym_identifier, ACTIONS 9), (anon_sym_import, ACTIONS 11), (anon_sym_from, ACTIONS 13),
    (anon_sym_LPAREN, ACTIONS 15), (anon_sym_STAR, ACTIONS 17), (anon_sym_print, ACTIONS 19),
    (anon_sym_comptime, ACTIONS 99), (anon_sym_assert, ACTIONS 23),
    (anon_sym___comptime_assert, ACTIONS 25), (anon_sym_return, ACTIONS 27),
    (anon_sym_del, ACTIONS 29), (anon_sym_raise, ACTIONS 31), (anon_sym_pass, ACTIONS 33),
    (anon_sym_break, ACTIONS 35), (anon_sym_continue, ACTIONS 37),
    (anon_sym___extension, ACTIONS 101), (anon_sym___mlir_region, ACTIONS 103),
    (anon_sym_if, ACTIONS 105), (anon_sym_match, ACTIONS 107), (anon_sym_async, ACTIONS 109),
    (anon_sym_for, ACTIONS 111), (anon_sym_while, ACTIONS 113), (anon_sym_try, ACTIONS 115),
    (anon_sym_with, ACTIONS 117), (anon_sym_def, ACTIONS 119), (anon_sym_fn, ACTIONS 119),
    (anon_sym_LBRACK, ACTIONS 59), (anon_sym_LBRACE, ACTIONS 61), (anon_sym_global, ACTIONS 63),
    (anon_sym_nonlocal, ACTIONS 65), (anon_sym_exec, ACTIONS 67), (anon_sym_type, ACTIONS 69),
    (anon_sym_class, ACTIONS 121), (anon_sym_struct, ACTIONS 121), (anon_sym_mut, ACTIONS 73),
    (anon_sym_out, ACTIONS 73), (anon_sym_trait, ACTIONS 123), (anon_sym_AT, ACTIONS 77),
    (anon_sym_DASH, ACTIONS 79), (anon_sym_PLUS, ACTIONS 79), (anon_sym_ref, ACTIONS 81),
    (anon_sym_var, ACTIONS 81), (anon_sym_not, ACTIONS 83), (anon_sym_TILDE, ACTIONS 79),
    (anon_sym_lambda, ACTIONS 85), (anon_sym_yield, ACTIONS 87), (sym_ellipsis, ACTIONS 89),
    (anon_sym___mlir_type, ACTIONS 91), (sym_integer, ACTIONS 93), (sym_float, ACTIONS 89),
    (anon_sym_await, ACTIONS 95), (sym_true, ACTIONS 93), (sym_false, ACTIONS 93),
    (sym_none, ACTIONS 93), (sym_comment, ACTIONS 3), (sym_line_continuation, ACTIONS 3),
    (sym__dedent, ACTIONS 125), (sym_string_start, ACTIONS 97)]"

definition parse_table_501 :: "(nat \<times> nat) list" where "parse_table_501 = [
    (sym__statement, STATE 927), (sym__simple_statements, STATE 927),
    (sym_import_statement, STATE 11814), (sym_future_import_statement, STATE 11814),
    (sym_import_from_statement, STATE 11814), (sym_print_statement, STATE 11814),
    (sym_assert_statement, STATE 11814), (sym_comptime_assert_statement, STATE 11814),
    (sym_expression_statement, STATE 11814), (sym_tuple_expression, STATE 12425),
    (sym_named_expression, STATE 7969), (sym__named_expression_lhs, STATE 12752),
    (sym_return_statement, STATE 11814), (sym_delete_statement, STATE 11814),
    (sym_raise_statement, STATE 11814), (sym_pass_statement, STATE 11814),
    (sym_break_statement, STATE 11814), (sym_continue_statement, STATE 11814),
    (sym_extension_definition, STATE 927), (sym_mlir_region, STATE 927),
    (sym_comptime_statement, STATE 927), (sym_if_statement, STATE 927),
    (sym_match_statement, STATE 927), (sym_for_statement, STATE 927),
    (sym_while_statement, STATE 927), (sym_try_statement, STATE 927),
    (sym_with_statement, STATE 927), (sym_function_definition, STATE 927),
    (sym_global_statement, STATE 11814), (sym_nonlocal_statement, STATE 11814),
    (sym_exec_statement, STATE 11814), (sym_type_alias_statement, STATE 11814),
    (sym_parameterized_alias_statement, STATE 11814), (sym_class_definition, STATE 927),
    (sym_trait_definition, STATE 927), (sym_decorated_definition, STATE 927),
    (sym_decorator, STATE 3670), (sym_block, STATE 4693), (sym_pattern, STATE 8086),
    (sym_tuple_pattern, STATE 8101), (sym_list_pattern, STATE 8101),
    (sym_list_splat_pattern, STATE 6819), (sym_as_pattern, STATE 7969),
    (sym_expression, STATE 9883), (sym_primary_expression, STATE 7326),
    (sym_comptime_expression, STATE 7017), (sym_transfer_expression, STATE 7017),
    (sym_not_operator, STATE 7969), (sym_boolean_operator, STATE 7969),
    (sym_binary_operator, STATE 7017), (sym_unary_operator, STATE 7017),
    (sym_comparison_operator, STATE 7969), (sym_lambda, STATE 7969),
    (sym_assignment, STATE 12425), (sym_augmented_assignment, STATE 12425),
    (sym_pattern_list, STATE 8578), (sym_yield, STATE 12425), (sym_attribute, STATE 6836),
    (sym_subscript, STATE 6838), (sym_call, STATE 6845), (sym_mlir_type, STATE 7017),
    (sym_list, STATE 7017), (sym_set, STATE 7017), (sym_tuple, STATE 7017),
    (sym_dictionary, STATE 7017), (sym_struct_literal, STATE 7017),
    (sym_list_comprehension, STATE 7017), (sym_dictionary_comprehension, STATE 7017),
    (sym_set_comprehension, STATE 7017), (sym_generator_expression, STATE 7017),
    (sym_parenthesized_expression, STATE 7017), (sym_conditional_expression, STATE 7969),
    (sym_concatenated_string, STATE 7017), (sym_string, STATE 6751), (sym_await, STATE 7017),
    (aux_sym_module_repeat1, STATE 927), (aux_sym_decorated_definition_repeat1, STATE 3670),
    (sym_identifier, ACTIONS 9), (anon_sym_import, ACTIONS 11), (anon_sym_from, ACTIONS 13),
    (anon_sym_LPAREN, ACTIONS 15), (anon_sym_STAR, ACTIONS 17), (anon_sym_print, ACTIONS 19),
    (anon_sym_comptime, ACTIONS 99), (anon_sym_assert, ACTIONS 23),
    (anon_sym___comptime_assert, ACTIONS 25), (anon_sym_return, ACTIONS 27),
    (anon_sym_del, ACTIONS 29), (anon_sym_raise, ACTIONS 31), (anon_sym_pass, ACTIONS 33),
    (anon_sym_break, ACTIONS 35), (anon_sym_continue, ACTIONS 37),
    (anon_sym___extension, ACTIONS 101), (anon_sym___mlir_region, ACTIONS 103),
    (anon_sym_if, ACTIONS 105), (anon_sym_match, ACTIONS 107), (anon_sym_async, ACTIONS 109),
    (anon_sym_for, ACTIONS 111), (anon_sym_while, ACTIONS 113), (anon_sym_try, ACTIONS 115),
    (anon_sym_with, ACTIONS 117), (anon_sym_def, ACTIONS 119), (anon_sym_fn, ACTIONS 119),
    (anon_sym_LBRACK, ACTIONS 59), (anon_sym_LBRACE, ACTIONS 61), (anon_sym_global, ACTIONS 63),
    (anon_sym_nonlocal, ACTIONS 65), (anon_sym_exec, ACTIONS 67), (anon_sym_type, ACTIONS 69),
    (anon_sym_class, ACTIONS 121), (anon_sym_struct, ACTIONS 121), (anon_sym_mut, ACTIONS 73),
    (anon_sym_out, ACTIONS 73), (anon_sym_trait, ACTIONS 123), (anon_sym_AT, ACTIONS 77),
    (anon_sym_DASH, ACTIONS 79), (anon_sym_PLUS, ACTIONS 79), (anon_sym_ref, ACTIONS 81),
    (anon_sym_var, ACTIONS 81), (anon_sym_not, ACTIONS 83), (anon_sym_TILDE, ACTIONS 79),
    (anon_sym_lambda, ACTIONS 85), (anon_sym_yield, ACTIONS 87), (sym_ellipsis, ACTIONS 89),
    (anon_sym___mlir_type, ACTIONS 91), (sym_integer, ACTIONS 93), (sym_float, ACTIONS 89),
    (anon_sym_await, ACTIONS 95), (sym_true, ACTIONS 93), (sym_false, ACTIONS 93),
    (sym_none, ACTIONS 93), (sym_comment, ACTIONS 3), (sym_line_continuation, ACTIONS 3),
    (sym__dedent, ACTIONS 125), (sym_string_start, ACTIONS 97)]"

definition parse_table_502 :: "(nat \<times> nat) list" where "parse_table_502 = [
    (sym__statement, STATE 927), (sym__simple_statements, STATE 927),
    (sym_import_statement, STATE 11814), (sym_future_import_statement, STATE 11814),
    (sym_import_from_statement, STATE 11814), (sym_print_statement, STATE 11814),
    (sym_assert_statement, STATE 11814), (sym_comptime_assert_statement, STATE 11814),
    (sym_expression_statement, STATE 11814), (sym_tuple_expression, STATE 12425),
    (sym_named_expression, STATE 7969), (sym__named_expression_lhs, STATE 12752),
    (sym_return_statement, STATE 11814), (sym_delete_statement, STATE 11814),
    (sym_raise_statement, STATE 11814), (sym_pass_statement, STATE 11814),
    (sym_break_statement, STATE 11814), (sym_continue_statement, STATE 11814),
    (sym_extension_definition, STATE 927), (sym_mlir_region, STATE 927),
    (sym_comptime_statement, STATE 927), (sym_if_statement, STATE 927),
    (sym_match_statement, STATE 927), (sym_for_statement, STATE 927),
    (sym_while_statement, STATE 927), (sym_try_statement, STATE 927),
    (sym_with_statement, STATE 927), (sym_function_definition, STATE 927),
    (sym_global_statement, STATE 11814), (sym_nonlocal_statement, STATE 11814),
    (sym_exec_statement, STATE 11814), (sym_type_alias_statement, STATE 11814),
    (sym_parameterized_alias_statement, STATE 11814), (sym_class_definition, STATE 927),
    (sym_trait_definition, STATE 927), (sym_decorated_definition, STATE 927),
    (sym_decorator, STATE 3670), (sym_block, STATE 4695), (sym_pattern, STATE 8086),
    (sym_tuple_pattern, STATE 8101), (sym_list_pattern, STATE 8101),
    (sym_list_splat_pattern, STATE 6819), (sym_as_pattern, STATE 7969),
    (sym_expression, STATE 9883), (sym_primary_expression, STATE 7326),
    (sym_comptime_expression, STATE 7017), (sym_transfer_expression, STATE 7017),
    (sym_not_operator, STATE 7969), (sym_boolean_operator, STATE 7969),
    (sym_binary_operator, STATE 7017), (sym_unary_operator, STATE 7017),
    (sym_comparison_operator, STATE 7969), (sym_lambda, STATE 7969),
    (sym_assignment, STATE 12425), (sym_augmented_assignment, STATE 12425),
    (sym_pattern_list, STATE 8578), (sym_yield, STATE 12425), (sym_attribute, STATE 6836),
    (sym_subscript, STATE 6838), (sym_call, STATE 6845), (sym_mlir_type, STATE 7017),
    (sym_list, STATE 7017), (sym_set, STATE 7017), (sym_tuple, STATE 7017),
    (sym_dictionary, STATE 7017), (sym_struct_literal, STATE 7017),
    (sym_list_comprehension, STATE 7017), (sym_dictionary_comprehension, STATE 7017),
    (sym_set_comprehension, STATE 7017), (sym_generator_expression, STATE 7017),
    (sym_parenthesized_expression, STATE 7017), (sym_conditional_expression, STATE 7969),
    (sym_concatenated_string, STATE 7017), (sym_string, STATE 6751), (sym_await, STATE 7017),
    (aux_sym_module_repeat1, STATE 927), (aux_sym_decorated_definition_repeat1, STATE 3670),
    (sym_identifier, ACTIONS 9), (anon_sym_import, ACTIONS 11), (anon_sym_from, ACTIONS 13),
    (anon_sym_LPAREN, ACTIONS 15), (anon_sym_STAR, ACTIONS 17), (anon_sym_print, ACTIONS 19),
    (anon_sym_comptime, ACTIONS 99), (anon_sym_assert, ACTIONS 23),
    (anon_sym___comptime_assert, ACTIONS 25), (anon_sym_return, ACTIONS 27),
    (anon_sym_del, ACTIONS 29), (anon_sym_raise, ACTIONS 31), (anon_sym_pass, ACTIONS 33),
    (anon_sym_break, ACTIONS 35), (anon_sym_continue, ACTIONS 37),
    (anon_sym___extension, ACTIONS 101), (anon_sym___mlir_region, ACTIONS 103),
    (anon_sym_if, ACTIONS 105), (anon_sym_match, ACTIONS 107), (anon_sym_async, ACTIONS 109),
    (anon_sym_for, ACTIONS 111), (anon_sym_while, ACTIONS 113), (anon_sym_try, ACTIONS 115),
    (anon_sym_with, ACTIONS 117), (anon_sym_def, ACTIONS 119), (anon_sym_fn, ACTIONS 119),
    (anon_sym_LBRACK, ACTIONS 59), (anon_sym_LBRACE, ACTIONS 61), (anon_sym_global, ACTIONS 63),
    (anon_sym_nonlocal, ACTIONS 65), (anon_sym_exec, ACTIONS 67), (anon_sym_type, ACTIONS 69),
    (anon_sym_class, ACTIONS 121), (anon_sym_struct, ACTIONS 121), (anon_sym_mut, ACTIONS 73),
    (anon_sym_out, ACTIONS 73), (anon_sym_trait, ACTIONS 123), (anon_sym_AT, ACTIONS 77),
    (anon_sym_DASH, ACTIONS 79), (anon_sym_PLUS, ACTIONS 79), (anon_sym_ref, ACTIONS 81),
    (anon_sym_var, ACTIONS 81), (anon_sym_not, ACTIONS 83), (anon_sym_TILDE, ACTIONS 79),
    (anon_sym_lambda, ACTIONS 85), (anon_sym_yield, ACTIONS 87), (sym_ellipsis, ACTIONS 89),
    (anon_sym___mlir_type, ACTIONS 91), (sym_integer, ACTIONS 93), (sym_float, ACTIONS 89),
    (anon_sym_await, ACTIONS 95), (sym_true, ACTIONS 93), (sym_false, ACTIONS 93),
    (sym_none, ACTIONS 93), (sym_comment, ACTIONS 3), (sym_line_continuation, ACTIONS 3),
    (sym__dedent, ACTIONS 125), (sym_string_start, ACTIONS 97)]"

definition parse_table_503 :: "(nat \<times> nat) list" where "parse_table_503 = [
    (sym__statement, STATE 927), (sym__simple_statements, STATE 927),
    (sym_import_statement, STATE 11814), (sym_future_import_statement, STATE 11814),
    (sym_import_from_statement, STATE 11814), (sym_print_statement, STATE 11814),
    (sym_assert_statement, STATE 11814), (sym_comptime_assert_statement, STATE 11814),
    (sym_expression_statement, STATE 11814), (sym_tuple_expression, STATE 12425),
    (sym_named_expression, STATE 7969), (sym__named_expression_lhs, STATE 12752),
    (sym_return_statement, STATE 11814), (sym_delete_statement, STATE 11814),
    (sym_raise_statement, STATE 11814), (sym_pass_statement, STATE 11814),
    (sym_break_statement, STATE 11814), (sym_continue_statement, STATE 11814),
    (sym_extension_definition, STATE 927), (sym_mlir_region, STATE 927),
    (sym_comptime_statement, STATE 927), (sym_if_statement, STATE 927),
    (sym_match_statement, STATE 927), (sym_for_statement, STATE 927),
    (sym_while_statement, STATE 927), (sym_try_statement, STATE 927),
    (sym_with_statement, STATE 927), (sym_function_definition, STATE 927),
    (sym_global_statement, STATE 11814), (sym_nonlocal_statement, STATE 11814),
    (sym_exec_statement, STATE 11814), (sym_type_alias_statement, STATE 11814),
    (sym_parameterized_alias_statement, STATE 11814), (sym_class_definition, STATE 927),
    (sym_trait_definition, STATE 927), (sym_decorated_definition, STATE 927),
    (sym_decorator, STATE 3670), (sym_block, STATE 4700), (sym_pattern, STATE 8086),
    (sym_tuple_pattern, STATE 8101), (sym_list_pattern, STATE 8101),
    (sym_list_splat_pattern, STATE 6819), (sym_as_pattern, STATE 7969),
    (sym_expression, STATE 9883), (sym_primary_expression, STATE 7326),
    (sym_comptime_expression, STATE 7017), (sym_transfer_expression, STATE 7017),
    (sym_not_operator, STATE 7969), (sym_boolean_operator, STATE 7969),
    (sym_binary_operator, STATE 7017), (sym_unary_operator, STATE 7017),
    (sym_comparison_operator, STATE 7969), (sym_lambda, STATE 7969),
    (sym_assignment, STATE 12425), (sym_augmented_assignment, STATE 12425),
    (sym_pattern_list, STATE 8578), (sym_yield, STATE 12425), (sym_attribute, STATE 6836),
    (sym_subscript, STATE 6838), (sym_call, STATE 6845), (sym_mlir_type, STATE 7017),
    (sym_list, STATE 7017), (sym_set, STATE 7017), (sym_tuple, STATE 7017),
    (sym_dictionary, STATE 7017), (sym_struct_literal, STATE 7017),
    (sym_list_comprehension, STATE 7017), (sym_dictionary_comprehension, STATE 7017),
    (sym_set_comprehension, STATE 7017), (sym_generator_expression, STATE 7017),
    (sym_parenthesized_expression, STATE 7017), (sym_conditional_expression, STATE 7969),
    (sym_concatenated_string, STATE 7017), (sym_string, STATE 6751), (sym_await, STATE 7017),
    (aux_sym_module_repeat1, STATE 927), (aux_sym_decorated_definition_repeat1, STATE 3670),
    (sym_identifier, ACTIONS 9), (anon_sym_import, ACTIONS 11), (anon_sym_from, ACTIONS 13),
    (anon_sym_LPAREN, ACTIONS 15), (anon_sym_STAR, ACTIONS 17), (anon_sym_print, ACTIONS 19),
    (anon_sym_comptime, ACTIONS 99), (anon_sym_assert, ACTIONS 23),
    (anon_sym___comptime_assert, ACTIONS 25), (anon_sym_return, ACTIONS 27),
    (anon_sym_del, ACTIONS 29), (anon_sym_raise, ACTIONS 31), (anon_sym_pass, ACTIONS 33),
    (anon_sym_break, ACTIONS 35), (anon_sym_continue, ACTIONS 37),
    (anon_sym___extension, ACTIONS 101), (anon_sym___mlir_region, ACTIONS 103),
    (anon_sym_if, ACTIONS 105), (anon_sym_match, ACTIONS 107), (anon_sym_async, ACTIONS 109),
    (anon_sym_for, ACTIONS 111), (anon_sym_while, ACTIONS 113), (anon_sym_try, ACTIONS 115),
    (anon_sym_with, ACTIONS 117), (anon_sym_def, ACTIONS 119), (anon_sym_fn, ACTIONS 119),
    (anon_sym_LBRACK, ACTIONS 59), (anon_sym_LBRACE, ACTIONS 61), (anon_sym_global, ACTIONS 63),
    (anon_sym_nonlocal, ACTIONS 65), (anon_sym_exec, ACTIONS 67), (anon_sym_type, ACTIONS 69),
    (anon_sym_class, ACTIONS 121), (anon_sym_struct, ACTIONS 121), (anon_sym_mut, ACTIONS 73),
    (anon_sym_out, ACTIONS 73), (anon_sym_trait, ACTIONS 123), (anon_sym_AT, ACTIONS 77),
    (anon_sym_DASH, ACTIONS 79), (anon_sym_PLUS, ACTIONS 79), (anon_sym_ref, ACTIONS 81),
    (anon_sym_var, ACTIONS 81), (anon_sym_not, ACTIONS 83), (anon_sym_TILDE, ACTIONS 79),
    (anon_sym_lambda, ACTIONS 85), (anon_sym_yield, ACTIONS 87), (sym_ellipsis, ACTIONS 89),
    (anon_sym___mlir_type, ACTIONS 91), (sym_integer, ACTIONS 93), (sym_float, ACTIONS 89),
    (anon_sym_await, ACTIONS 95), (sym_true, ACTIONS 93), (sym_false, ACTIONS 93),
    (sym_none, ACTIONS 93), (sym_comment, ACTIONS 3), (sym_line_continuation, ACTIONS 3),
    (sym__dedent, ACTIONS 125), (sym_string_start, ACTIONS 97)]"

definition parse_table_504 :: "(nat \<times> nat) list" where "parse_table_504 = [
    (sym__statement, STATE 927), (sym__simple_statements, STATE 927),
    (sym_import_statement, STATE 11814), (sym_future_import_statement, STATE 11814),
    (sym_import_from_statement, STATE 11814), (sym_print_statement, STATE 11814),
    (sym_assert_statement, STATE 11814), (sym_comptime_assert_statement, STATE 11814),
    (sym_expression_statement, STATE 11814), (sym_tuple_expression, STATE 12425),
    (sym_named_expression, STATE 7969), (sym__named_expression_lhs, STATE 12752),
    (sym_return_statement, STATE 11814), (sym_delete_statement, STATE 11814),
    (sym_raise_statement, STATE 11814), (sym_pass_statement, STATE 11814),
    (sym_break_statement, STATE 11814), (sym_continue_statement, STATE 11814),
    (sym_extension_definition, STATE 927), (sym_mlir_region, STATE 927),
    (sym_comptime_statement, STATE 927), (sym_if_statement, STATE 927),
    (sym_match_statement, STATE 927), (sym_for_statement, STATE 927),
    (sym_while_statement, STATE 927), (sym_try_statement, STATE 927),
    (sym_with_statement, STATE 927), (sym_function_definition, STATE 927),
    (sym_global_statement, STATE 11814), (sym_nonlocal_statement, STATE 11814),
    (sym_exec_statement, STATE 11814), (sym_type_alias_statement, STATE 11814),
    (sym_parameterized_alias_statement, STATE 11814), (sym_class_definition, STATE 927),
    (sym_trait_definition, STATE 927), (sym_decorated_definition, STATE 927),
    (sym_decorator, STATE 3670), (sym_block, STATE 4703), (sym_pattern, STATE 8086),
    (sym_tuple_pattern, STATE 8101), (sym_list_pattern, STATE 8101),
    (sym_list_splat_pattern, STATE 6819), (sym_as_pattern, STATE 7969),
    (sym_expression, STATE 9883), (sym_primary_expression, STATE 7326),
    (sym_comptime_expression, STATE 7017), (sym_transfer_expression, STATE 7017),
    (sym_not_operator, STATE 7969), (sym_boolean_operator, STATE 7969),
    (sym_binary_operator, STATE 7017), (sym_unary_operator, STATE 7017),
    (sym_comparison_operator, STATE 7969), (sym_lambda, STATE 7969),
    (sym_assignment, STATE 12425), (sym_augmented_assignment, STATE 12425),
    (sym_pattern_list, STATE 8578), (sym_yield, STATE 12425), (sym_attribute, STATE 6836),
    (sym_subscript, STATE 6838), (sym_call, STATE 6845), (sym_mlir_type, STATE 7017),
    (sym_list, STATE 7017), (sym_set, STATE 7017), (sym_tuple, STATE 7017),
    (sym_dictionary, STATE 7017), (sym_struct_literal, STATE 7017),
    (sym_list_comprehension, STATE 7017), (sym_dictionary_comprehension, STATE 7017),
    (sym_set_comprehension, STATE 7017), (sym_generator_expression, STATE 7017),
    (sym_parenthesized_expression, STATE 7017), (sym_conditional_expression, STATE 7969),
    (sym_concatenated_string, STATE 7017), (sym_string, STATE 6751), (sym_await, STATE 7017),
    (aux_sym_module_repeat1, STATE 927), (aux_sym_decorated_definition_repeat1, STATE 3670),
    (sym_identifier, ACTIONS 9), (anon_sym_import, ACTIONS 11), (anon_sym_from, ACTIONS 13),
    (anon_sym_LPAREN, ACTIONS 15), (anon_sym_STAR, ACTIONS 17), (anon_sym_print, ACTIONS 19),
    (anon_sym_comptime, ACTIONS 99), (anon_sym_assert, ACTIONS 23),
    (anon_sym___comptime_assert, ACTIONS 25), (anon_sym_return, ACTIONS 27),
    (anon_sym_del, ACTIONS 29), (anon_sym_raise, ACTIONS 31), (anon_sym_pass, ACTIONS 33),
    (anon_sym_break, ACTIONS 35), (anon_sym_continue, ACTIONS 37),
    (anon_sym___extension, ACTIONS 101), (anon_sym___mlir_region, ACTIONS 103),
    (anon_sym_if, ACTIONS 105), (anon_sym_match, ACTIONS 107), (anon_sym_async, ACTIONS 109),
    (anon_sym_for, ACTIONS 111), (anon_sym_while, ACTIONS 113), (anon_sym_try, ACTIONS 115),
    (anon_sym_with, ACTIONS 117), (anon_sym_def, ACTIONS 119), (anon_sym_fn, ACTIONS 119),
    (anon_sym_LBRACK, ACTIONS 59), (anon_sym_LBRACE, ACTIONS 61), (anon_sym_global, ACTIONS 63),
    (anon_sym_nonlocal, ACTIONS 65), (anon_sym_exec, ACTIONS 67), (anon_sym_type, ACTIONS 69),
    (anon_sym_class, ACTIONS 121), (anon_sym_struct, ACTIONS 121), (anon_sym_mut, ACTIONS 73),
    (anon_sym_out, ACTIONS 73), (anon_sym_trait, ACTIONS 123), (anon_sym_AT, ACTIONS 77),
    (anon_sym_DASH, ACTIONS 79), (anon_sym_PLUS, ACTIONS 79), (anon_sym_ref, ACTIONS 81),
    (anon_sym_var, ACTIONS 81), (anon_sym_not, ACTIONS 83), (anon_sym_TILDE, ACTIONS 79),
    (anon_sym_lambda, ACTIONS 85), (anon_sym_yield, ACTIONS 87), (sym_ellipsis, ACTIONS 89),
    (anon_sym___mlir_type, ACTIONS 91), (sym_integer, ACTIONS 93), (sym_float, ACTIONS 89),
    (anon_sym_await, ACTIONS 95), (sym_true, ACTIONS 93), (sym_false, ACTIONS 93),
    (sym_none, ACTIONS 93), (sym_comment, ACTIONS 3), (sym_line_continuation, ACTIONS 3),
    (sym__dedent, ACTIONS 125), (sym_string_start, ACTIONS 97)]"

definition parse_table_505 :: "(nat \<times> nat) list" where "parse_table_505 = [
    (sym__statement, STATE 927), (sym__simple_statements, STATE 927),
    (sym_import_statement, STATE 11814), (sym_future_import_statement, STATE 11814),
    (sym_import_from_statement, STATE 11814), (sym_print_statement, STATE 11814),
    (sym_assert_statement, STATE 11814), (sym_comptime_assert_statement, STATE 11814),
    (sym_expression_statement, STATE 11814), (sym_tuple_expression, STATE 12425),
    (sym_named_expression, STATE 7969), (sym__named_expression_lhs, STATE 12752),
    (sym_return_statement, STATE 11814), (sym_delete_statement, STATE 11814),
    (sym_raise_statement, STATE 11814), (sym_pass_statement, STATE 11814),
    (sym_break_statement, STATE 11814), (sym_continue_statement, STATE 11814),
    (sym_extension_definition, STATE 927), (sym_mlir_region, STATE 927),
    (sym_comptime_statement, STATE 927), (sym_if_statement, STATE 927),
    (sym_match_statement, STATE 927), (sym_for_statement, STATE 927),
    (sym_while_statement, STATE 927), (sym_try_statement, STATE 927),
    (sym_with_statement, STATE 927), (sym_function_definition, STATE 927),
    (sym_global_statement, STATE 11814), (sym_nonlocal_statement, STATE 11814),
    (sym_exec_statement, STATE 11814), (sym_type_alias_statement, STATE 11814),
    (sym_parameterized_alias_statement, STATE 11814), (sym_class_definition, STATE 927),
    (sym_trait_definition, STATE 927), (sym_decorated_definition, STATE 927),
    (sym_decorator, STATE 3670), (sym_block, STATE 4707), (sym_pattern, STATE 8086),
    (sym_tuple_pattern, STATE 8101), (sym_list_pattern, STATE 8101),
    (sym_list_splat_pattern, STATE 6819), (sym_as_pattern, STATE 7969),
    (sym_expression, STATE 9883), (sym_primary_expression, STATE 7326),
    (sym_comptime_expression, STATE 7017), (sym_transfer_expression, STATE 7017),
    (sym_not_operator, STATE 7969), (sym_boolean_operator, STATE 7969),
    (sym_binary_operator, STATE 7017), (sym_unary_operator, STATE 7017),
    (sym_comparison_operator, STATE 7969), (sym_lambda, STATE 7969),
    (sym_assignment, STATE 12425), (sym_augmented_assignment, STATE 12425),
    (sym_pattern_list, STATE 8578), (sym_yield, STATE 12425), (sym_attribute, STATE 6836),
    (sym_subscript, STATE 6838), (sym_call, STATE 6845), (sym_mlir_type, STATE 7017),
    (sym_list, STATE 7017), (sym_set, STATE 7017), (sym_tuple, STATE 7017),
    (sym_dictionary, STATE 7017), (sym_struct_literal, STATE 7017),
    (sym_list_comprehension, STATE 7017), (sym_dictionary_comprehension, STATE 7017),
    (sym_set_comprehension, STATE 7017), (sym_generator_expression, STATE 7017),
    (sym_parenthesized_expression, STATE 7017), (sym_conditional_expression, STATE 7969),
    (sym_concatenated_string, STATE 7017), (sym_string, STATE 6751), (sym_await, STATE 7017),
    (aux_sym_module_repeat1, STATE 927), (aux_sym_decorated_definition_repeat1, STATE 3670),
    (sym_identifier, ACTIONS 9), (anon_sym_import, ACTIONS 11), (anon_sym_from, ACTIONS 13),
    (anon_sym_LPAREN, ACTIONS 15), (anon_sym_STAR, ACTIONS 17), (anon_sym_print, ACTIONS 19),
    (anon_sym_comptime, ACTIONS 99), (anon_sym_assert, ACTIONS 23),
    (anon_sym___comptime_assert, ACTIONS 25), (anon_sym_return, ACTIONS 27),
    (anon_sym_del, ACTIONS 29), (anon_sym_raise, ACTIONS 31), (anon_sym_pass, ACTIONS 33),
    (anon_sym_break, ACTIONS 35), (anon_sym_continue, ACTIONS 37),
    (anon_sym___extension, ACTIONS 101), (anon_sym___mlir_region, ACTIONS 103),
    (anon_sym_if, ACTIONS 105), (anon_sym_match, ACTIONS 107), (anon_sym_async, ACTIONS 109),
    (anon_sym_for, ACTIONS 111), (anon_sym_while, ACTIONS 113), (anon_sym_try, ACTIONS 115),
    (anon_sym_with, ACTIONS 117), (anon_sym_def, ACTIONS 119), (anon_sym_fn, ACTIONS 119),
    (anon_sym_LBRACK, ACTIONS 59), (anon_sym_LBRACE, ACTIONS 61), (anon_sym_global, ACTIONS 63),
    (anon_sym_nonlocal, ACTIONS 65), (anon_sym_exec, ACTIONS 67), (anon_sym_type, ACTIONS 69),
    (anon_sym_class, ACTIONS 121), (anon_sym_struct, ACTIONS 121), (anon_sym_mut, ACTIONS 73),
    (anon_sym_out, ACTIONS 73), (anon_sym_trait, ACTIONS 123), (anon_sym_AT, ACTIONS 77),
    (anon_sym_DASH, ACTIONS 79), (anon_sym_PLUS, ACTIONS 79), (anon_sym_ref, ACTIONS 81),
    (anon_sym_var, ACTIONS 81), (anon_sym_not, ACTIONS 83), (anon_sym_TILDE, ACTIONS 79),
    (anon_sym_lambda, ACTIONS 85), (anon_sym_yield, ACTIONS 87), (sym_ellipsis, ACTIONS 89),
    (anon_sym___mlir_type, ACTIONS 91), (sym_integer, ACTIONS 93), (sym_float, ACTIONS 89),
    (anon_sym_await, ACTIONS 95), (sym_true, ACTIONS 93), (sym_false, ACTIONS 93),
    (sym_none, ACTIONS 93), (sym_comment, ACTIONS 3), (sym_line_continuation, ACTIONS 3),
    (sym__dedent, ACTIONS 125), (sym_string_start, ACTIONS 97)]"

definition parse_table_506 :: "(nat \<times> nat) list" where "parse_table_506 = [
    (sym__statement, STATE 927), (sym__simple_statements, STATE 927),
    (sym_import_statement, STATE 11814), (sym_future_import_statement, STATE 11814),
    (sym_import_from_statement, STATE 11814), (sym_print_statement, STATE 11814),
    (sym_assert_statement, STATE 11814), (sym_comptime_assert_statement, STATE 11814),
    (sym_expression_statement, STATE 11814), (sym_tuple_expression, STATE 12425),
    (sym_named_expression, STATE 7969), (sym__named_expression_lhs, STATE 12752),
    (sym_return_statement, STATE 11814), (sym_delete_statement, STATE 11814),
    (sym_raise_statement, STATE 11814), (sym_pass_statement, STATE 11814),
    (sym_break_statement, STATE 11814), (sym_continue_statement, STATE 11814),
    (sym_extension_definition, STATE 927), (sym_mlir_region, STATE 927),
    (sym_comptime_statement, STATE 927), (sym_if_statement, STATE 927),
    (sym_match_statement, STATE 927), (sym_for_statement, STATE 927),
    (sym_while_statement, STATE 927), (sym_try_statement, STATE 927),
    (sym_with_statement, STATE 927), (sym_function_definition, STATE 927),
    (sym_global_statement, STATE 11814), (sym_nonlocal_statement, STATE 11814),
    (sym_exec_statement, STATE 11814), (sym_type_alias_statement, STATE 11814),
    (sym_parameterized_alias_statement, STATE 11814), (sym_class_definition, STATE 927),
    (sym_trait_definition, STATE 927), (sym_decorated_definition, STATE 927),
    (sym_decorator, STATE 3670), (sym_block, STATE 4715), (sym_pattern, STATE 8086),
    (sym_tuple_pattern, STATE 8101), (sym_list_pattern, STATE 8101),
    (sym_list_splat_pattern, STATE 6819), (sym_as_pattern, STATE 7969),
    (sym_expression, STATE 9883), (sym_primary_expression, STATE 7326),
    (sym_comptime_expression, STATE 7017), (sym_transfer_expression, STATE 7017),
    (sym_not_operator, STATE 7969), (sym_boolean_operator, STATE 7969),
    (sym_binary_operator, STATE 7017), (sym_unary_operator, STATE 7017),
    (sym_comparison_operator, STATE 7969), (sym_lambda, STATE 7969),
    (sym_assignment, STATE 12425), (sym_augmented_assignment, STATE 12425),
    (sym_pattern_list, STATE 8578), (sym_yield, STATE 12425), (sym_attribute, STATE 6836),
    (sym_subscript, STATE 6838), (sym_call, STATE 6845), (sym_mlir_type, STATE 7017),
    (sym_list, STATE 7017), (sym_set, STATE 7017), (sym_tuple, STATE 7017),
    (sym_dictionary, STATE 7017), (sym_struct_literal, STATE 7017),
    (sym_list_comprehension, STATE 7017), (sym_dictionary_comprehension, STATE 7017),
    (sym_set_comprehension, STATE 7017), (sym_generator_expression, STATE 7017),
    (sym_parenthesized_expression, STATE 7017), (sym_conditional_expression, STATE 7969),
    (sym_concatenated_string, STATE 7017), (sym_string, STATE 6751), (sym_await, STATE 7017),
    (aux_sym_module_repeat1, STATE 927), (aux_sym_decorated_definition_repeat1, STATE 3670),
    (sym_identifier, ACTIONS 9), (anon_sym_import, ACTIONS 11), (anon_sym_from, ACTIONS 13),
    (anon_sym_LPAREN, ACTIONS 15), (anon_sym_STAR, ACTIONS 17), (anon_sym_print, ACTIONS 19),
    (anon_sym_comptime, ACTIONS 99), (anon_sym_assert, ACTIONS 23),
    (anon_sym___comptime_assert, ACTIONS 25), (anon_sym_return, ACTIONS 27),
    (anon_sym_del, ACTIONS 29), (anon_sym_raise, ACTIONS 31), (anon_sym_pass, ACTIONS 33),
    (anon_sym_break, ACTIONS 35), (anon_sym_continue, ACTIONS 37),
    (anon_sym___extension, ACTIONS 101), (anon_sym___mlir_region, ACTIONS 103),
    (anon_sym_if, ACTIONS 105), (anon_sym_match, ACTIONS 107), (anon_sym_async, ACTIONS 109),
    (anon_sym_for, ACTIONS 111), (anon_sym_while, ACTIONS 113), (anon_sym_try, ACTIONS 115),
    (anon_sym_with, ACTIONS 117), (anon_sym_def, ACTIONS 119), (anon_sym_fn, ACTIONS 119),
    (anon_sym_LBRACK, ACTIONS 59), (anon_sym_LBRACE, ACTIONS 61), (anon_sym_global, ACTIONS 63),
    (anon_sym_nonlocal, ACTIONS 65), (anon_sym_exec, ACTIONS 67), (anon_sym_type, ACTIONS 69),
    (anon_sym_class, ACTIONS 121), (anon_sym_struct, ACTIONS 121), (anon_sym_mut, ACTIONS 73),
    (anon_sym_out, ACTIONS 73), (anon_sym_trait, ACTIONS 123), (anon_sym_AT, ACTIONS 77),
    (anon_sym_DASH, ACTIONS 79), (anon_sym_PLUS, ACTIONS 79), (anon_sym_ref, ACTIONS 81),
    (anon_sym_var, ACTIONS 81), (anon_sym_not, ACTIONS 83), (anon_sym_TILDE, ACTIONS 79),
    (anon_sym_lambda, ACTIONS 85), (anon_sym_yield, ACTIONS 87), (sym_ellipsis, ACTIONS 89),
    (anon_sym___mlir_type, ACTIONS 91), (sym_integer, ACTIONS 93), (sym_float, ACTIONS 89),
    (anon_sym_await, ACTIONS 95), (sym_true, ACTIONS 93), (sym_false, ACTIONS 93),
    (sym_none, ACTIONS 93), (sym_comment, ACTIONS 3), (sym_line_continuation, ACTIONS 3),
    (sym__dedent, ACTIONS 125), (sym_string_start, ACTIONS 97)]"

definition parse_table_507 :: "(nat \<times> nat) list" where "parse_table_507 = [
    (sym__statement, STATE 927), (sym__simple_statements, STATE 927),
    (sym_import_statement, STATE 11814), (sym_future_import_statement, STATE 11814),
    (sym_import_from_statement, STATE 11814), (sym_print_statement, STATE 11814),
    (sym_assert_statement, STATE 11814), (sym_comptime_assert_statement, STATE 11814),
    (sym_expression_statement, STATE 11814), (sym_tuple_expression, STATE 12425),
    (sym_named_expression, STATE 7969), (sym__named_expression_lhs, STATE 12752),
    (sym_return_statement, STATE 11814), (sym_delete_statement, STATE 11814),
    (sym_raise_statement, STATE 11814), (sym_pass_statement, STATE 11814),
    (sym_break_statement, STATE 11814), (sym_continue_statement, STATE 11814),
    (sym_extension_definition, STATE 927), (sym_mlir_region, STATE 927),
    (sym_comptime_statement, STATE 927), (sym_if_statement, STATE 927),
    (sym_match_statement, STATE 927), (sym_for_statement, STATE 927),
    (sym_while_statement, STATE 927), (sym_try_statement, STATE 927),
    (sym_with_statement, STATE 927), (sym_function_definition, STATE 927),
    (sym_global_statement, STATE 11814), (sym_nonlocal_statement, STATE 11814),
    (sym_exec_statement, STATE 11814), (sym_type_alias_statement, STATE 11814),
    (sym_parameterized_alias_statement, STATE 11814), (sym_class_definition, STATE 927),
    (sym_trait_definition, STATE 927), (sym_decorated_definition, STATE 927),
    (sym_decorator, STATE 3670), (sym_block, STATE 4719), (sym_pattern, STATE 8086),
    (sym_tuple_pattern, STATE 8101), (sym_list_pattern, STATE 8101),
    (sym_list_splat_pattern, STATE 6819), (sym_as_pattern, STATE 7969),
    (sym_expression, STATE 9883), (sym_primary_expression, STATE 7326),
    (sym_comptime_expression, STATE 7017), (sym_transfer_expression, STATE 7017),
    (sym_not_operator, STATE 7969), (sym_boolean_operator, STATE 7969),
    (sym_binary_operator, STATE 7017), (sym_unary_operator, STATE 7017),
    (sym_comparison_operator, STATE 7969), (sym_lambda, STATE 7969),
    (sym_assignment, STATE 12425), (sym_augmented_assignment, STATE 12425),
    (sym_pattern_list, STATE 8578), (sym_yield, STATE 12425), (sym_attribute, STATE 6836),
    (sym_subscript, STATE 6838), (sym_call, STATE 6845), (sym_mlir_type, STATE 7017),
    (sym_list, STATE 7017), (sym_set, STATE 7017), (sym_tuple, STATE 7017),
    (sym_dictionary, STATE 7017), (sym_struct_literal, STATE 7017),
    (sym_list_comprehension, STATE 7017), (sym_dictionary_comprehension, STATE 7017),
    (sym_set_comprehension, STATE 7017), (sym_generator_expression, STATE 7017),
    (sym_parenthesized_expression, STATE 7017), (sym_conditional_expression, STATE 7969),
    (sym_concatenated_string, STATE 7017), (sym_string, STATE 6751), (sym_await, STATE 7017),
    (aux_sym_module_repeat1, STATE 927), (aux_sym_decorated_definition_repeat1, STATE 3670),
    (sym_identifier, ACTIONS 9), (anon_sym_import, ACTIONS 11), (anon_sym_from, ACTIONS 13),
    (anon_sym_LPAREN, ACTIONS 15), (anon_sym_STAR, ACTIONS 17), (anon_sym_print, ACTIONS 19),
    (anon_sym_comptime, ACTIONS 99), (anon_sym_assert, ACTIONS 23),
    (anon_sym___comptime_assert, ACTIONS 25), (anon_sym_return, ACTIONS 27),
    (anon_sym_del, ACTIONS 29), (anon_sym_raise, ACTIONS 31), (anon_sym_pass, ACTIONS 33),
    (anon_sym_break, ACTIONS 35), (anon_sym_continue, ACTIONS 37),
    (anon_sym___extension, ACTIONS 101), (anon_sym___mlir_region, ACTIONS 103),
    (anon_sym_if, ACTIONS 105), (anon_sym_match, ACTIONS 107), (anon_sym_async, ACTIONS 109),
    (anon_sym_for, ACTIONS 111), (anon_sym_while, ACTIONS 113), (anon_sym_try, ACTIONS 115),
    (anon_sym_with, ACTIONS 117), (anon_sym_def, ACTIONS 119), (anon_sym_fn, ACTIONS 119),
    (anon_sym_LBRACK, ACTIONS 59), (anon_sym_LBRACE, ACTIONS 61), (anon_sym_global, ACTIONS 63),
    (anon_sym_nonlocal, ACTIONS 65), (anon_sym_exec, ACTIONS 67), (anon_sym_type, ACTIONS 69),
    (anon_sym_class, ACTIONS 121), (anon_sym_struct, ACTIONS 121), (anon_sym_mut, ACTIONS 73),
    (anon_sym_out, ACTIONS 73), (anon_sym_trait, ACTIONS 123), (anon_sym_AT, ACTIONS 77),
    (anon_sym_DASH, ACTIONS 79), (anon_sym_PLUS, ACTIONS 79), (anon_sym_ref, ACTIONS 81),
    (anon_sym_var, ACTIONS 81), (anon_sym_not, ACTIONS 83), (anon_sym_TILDE, ACTIONS 79),
    (anon_sym_lambda, ACTIONS 85), (anon_sym_yield, ACTIONS 87), (sym_ellipsis, ACTIONS 89),
    (anon_sym___mlir_type, ACTIONS 91), (sym_integer, ACTIONS 93), (sym_float, ACTIONS 89),
    (anon_sym_await, ACTIONS 95), (sym_true, ACTIONS 93), (sym_false, ACTIONS 93),
    (sym_none, ACTIONS 93), (sym_comment, ACTIONS 3), (sym_line_continuation, ACTIONS 3),
    (sym__dedent, ACTIONS 125), (sym_string_start, ACTIONS 97)]"

definition parse_table_508 :: "(nat \<times> nat) list" where "parse_table_508 = [
    (sym__statement, STATE 927), (sym__simple_statements, STATE 927),
    (sym_import_statement, STATE 11814), (sym_future_import_statement, STATE 11814),
    (sym_import_from_statement, STATE 11814), (sym_print_statement, STATE 11814),
    (sym_assert_statement, STATE 11814), (sym_comptime_assert_statement, STATE 11814),
    (sym_expression_statement, STATE 11814), (sym_tuple_expression, STATE 12425),
    (sym_named_expression, STATE 7969), (sym__named_expression_lhs, STATE 12752),
    (sym_return_statement, STATE 11814), (sym_delete_statement, STATE 11814),
    (sym_raise_statement, STATE 11814), (sym_pass_statement, STATE 11814),
    (sym_break_statement, STATE 11814), (sym_continue_statement, STATE 11814),
    (sym_extension_definition, STATE 927), (sym_mlir_region, STATE 927),
    (sym_comptime_statement, STATE 927), (sym_if_statement, STATE 927),
    (sym_match_statement, STATE 927), (sym_for_statement, STATE 927),
    (sym_while_statement, STATE 927), (sym_try_statement, STATE 927),
    (sym_with_statement, STATE 927), (sym_function_definition, STATE 927),
    (sym_global_statement, STATE 11814), (sym_nonlocal_statement, STATE 11814),
    (sym_exec_statement, STATE 11814), (sym_type_alias_statement, STATE 11814),
    (sym_parameterized_alias_statement, STATE 11814), (sym_class_definition, STATE 927),
    (sym_trait_definition, STATE 927), (sym_decorated_definition, STATE 927),
    (sym_decorator, STATE 3670), (sym_block, STATE 4733), (sym_pattern, STATE 8086),
    (sym_tuple_pattern, STATE 8101), (sym_list_pattern, STATE 8101),
    (sym_list_splat_pattern, STATE 6819), (sym_as_pattern, STATE 7969),
    (sym_expression, STATE 9883), (sym_primary_expression, STATE 7326),
    (sym_comptime_expression, STATE 7017), (sym_transfer_expression, STATE 7017),
    (sym_not_operator, STATE 7969), (sym_boolean_operator, STATE 7969),
    (sym_binary_operator, STATE 7017), (sym_unary_operator, STATE 7017),
    (sym_comparison_operator, STATE 7969), (sym_lambda, STATE 7969),
    (sym_assignment, STATE 12425), (sym_augmented_assignment, STATE 12425),
    (sym_pattern_list, STATE 8578), (sym_yield, STATE 12425), (sym_attribute, STATE 6836),
    (sym_subscript, STATE 6838), (sym_call, STATE 6845), (sym_mlir_type, STATE 7017),
    (sym_list, STATE 7017), (sym_set, STATE 7017), (sym_tuple, STATE 7017),
    (sym_dictionary, STATE 7017), (sym_struct_literal, STATE 7017),
    (sym_list_comprehension, STATE 7017), (sym_dictionary_comprehension, STATE 7017),
    (sym_set_comprehension, STATE 7017), (sym_generator_expression, STATE 7017),
    (sym_parenthesized_expression, STATE 7017), (sym_conditional_expression, STATE 7969),
    (sym_concatenated_string, STATE 7017), (sym_string, STATE 6751), (sym_await, STATE 7017),
    (aux_sym_module_repeat1, STATE 927), (aux_sym_decorated_definition_repeat1, STATE 3670),
    (sym_identifier, ACTIONS 9), (anon_sym_import, ACTIONS 11), (anon_sym_from, ACTIONS 13),
    (anon_sym_LPAREN, ACTIONS 15), (anon_sym_STAR, ACTIONS 17), (anon_sym_print, ACTIONS 19),
    (anon_sym_comptime, ACTIONS 99), (anon_sym_assert, ACTIONS 23),
    (anon_sym___comptime_assert, ACTIONS 25), (anon_sym_return, ACTIONS 27),
    (anon_sym_del, ACTIONS 29), (anon_sym_raise, ACTIONS 31), (anon_sym_pass, ACTIONS 33),
    (anon_sym_break, ACTIONS 35), (anon_sym_continue, ACTIONS 37),
    (anon_sym___extension, ACTIONS 101), (anon_sym___mlir_region, ACTIONS 103),
    (anon_sym_if, ACTIONS 105), (anon_sym_match, ACTIONS 107), (anon_sym_async, ACTIONS 109),
    (anon_sym_for, ACTIONS 111), (anon_sym_while, ACTIONS 113), (anon_sym_try, ACTIONS 115),
    (anon_sym_with, ACTIONS 117), (anon_sym_def, ACTIONS 119), (anon_sym_fn, ACTIONS 119),
    (anon_sym_LBRACK, ACTIONS 59), (anon_sym_LBRACE, ACTIONS 61), (anon_sym_global, ACTIONS 63),
    (anon_sym_nonlocal, ACTIONS 65), (anon_sym_exec, ACTIONS 67), (anon_sym_type, ACTIONS 69),
    (anon_sym_class, ACTIONS 121), (anon_sym_struct, ACTIONS 121), (anon_sym_mut, ACTIONS 73),
    (anon_sym_out, ACTIONS 73), (anon_sym_trait, ACTIONS 123), (anon_sym_AT, ACTIONS 77),
    (anon_sym_DASH, ACTIONS 79), (anon_sym_PLUS, ACTIONS 79), (anon_sym_ref, ACTIONS 81),
    (anon_sym_var, ACTIONS 81), (anon_sym_not, ACTIONS 83), (anon_sym_TILDE, ACTIONS 79),
    (anon_sym_lambda, ACTIONS 85), (anon_sym_yield, ACTIONS 87), (sym_ellipsis, ACTIONS 89),
    (anon_sym___mlir_type, ACTIONS 91), (sym_integer, ACTIONS 93), (sym_float, ACTIONS 89),
    (anon_sym_await, ACTIONS 95), (sym_true, ACTIONS 93), (sym_false, ACTIONS 93),
    (sym_none, ACTIONS 93), (sym_comment, ACTIONS 3), (sym_line_continuation, ACTIONS 3),
    (sym__dedent, ACTIONS 125), (sym_string_start, ACTIONS 97)]"

definition parse_table_509 :: "(nat \<times> nat) list" where "parse_table_509 = [
    (sym__statement, STATE 927), (sym__simple_statements, STATE 927),
    (sym_import_statement, STATE 11814), (sym_future_import_statement, STATE 11814),
    (sym_import_from_statement, STATE 11814), (sym_print_statement, STATE 11814),
    (sym_assert_statement, STATE 11814), (sym_comptime_assert_statement, STATE 11814),
    (sym_expression_statement, STATE 11814), (sym_tuple_expression, STATE 12425),
    (sym_named_expression, STATE 7969), (sym__named_expression_lhs, STATE 12752),
    (sym_return_statement, STATE 11814), (sym_delete_statement, STATE 11814),
    (sym_raise_statement, STATE 11814), (sym_pass_statement, STATE 11814),
    (sym_break_statement, STATE 11814), (sym_continue_statement, STATE 11814),
    (sym_extension_definition, STATE 927), (sym_mlir_region, STATE 927),
    (sym_comptime_statement, STATE 927), (sym_if_statement, STATE 927),
    (sym_match_statement, STATE 927), (sym_for_statement, STATE 927),
    (sym_while_statement, STATE 927), (sym_try_statement, STATE 927),
    (sym_with_statement, STATE 927), (sym_function_definition, STATE 927),
    (sym_global_statement, STATE 11814), (sym_nonlocal_statement, STATE 11814),
    (sym_exec_statement, STATE 11814), (sym_type_alias_statement, STATE 11814),
    (sym_parameterized_alias_statement, STATE 11814), (sym_class_definition, STATE 927),
    (sym_trait_definition, STATE 927), (sym_decorated_definition, STATE 927),
    (sym_decorator, STATE 3670), (sym_block, STATE 4735), (sym_pattern, STATE 8086),
    (sym_tuple_pattern, STATE 8101), (sym_list_pattern, STATE 8101),
    (sym_list_splat_pattern, STATE 6819), (sym_as_pattern, STATE 7969),
    (sym_expression, STATE 9883), (sym_primary_expression, STATE 7326),
    (sym_comptime_expression, STATE 7017), (sym_transfer_expression, STATE 7017),
    (sym_not_operator, STATE 7969), (sym_boolean_operator, STATE 7969),
    (sym_binary_operator, STATE 7017), (sym_unary_operator, STATE 7017),
    (sym_comparison_operator, STATE 7969), (sym_lambda, STATE 7969),
    (sym_assignment, STATE 12425), (sym_augmented_assignment, STATE 12425),
    (sym_pattern_list, STATE 8578), (sym_yield, STATE 12425), (sym_attribute, STATE 6836),
    (sym_subscript, STATE 6838), (sym_call, STATE 6845), (sym_mlir_type, STATE 7017),
    (sym_list, STATE 7017), (sym_set, STATE 7017), (sym_tuple, STATE 7017),
    (sym_dictionary, STATE 7017), (sym_struct_literal, STATE 7017),
    (sym_list_comprehension, STATE 7017), (sym_dictionary_comprehension, STATE 7017),
    (sym_set_comprehension, STATE 7017), (sym_generator_expression, STATE 7017),
    (sym_parenthesized_expression, STATE 7017), (sym_conditional_expression, STATE 7969),
    (sym_concatenated_string, STATE 7017), (sym_string, STATE 6751), (sym_await, STATE 7017),
    (aux_sym_module_repeat1, STATE 927), (aux_sym_decorated_definition_repeat1, STATE 3670),
    (sym_identifier, ACTIONS 9), (anon_sym_import, ACTIONS 11), (anon_sym_from, ACTIONS 13),
    (anon_sym_LPAREN, ACTIONS 15), (anon_sym_STAR, ACTIONS 17), (anon_sym_print, ACTIONS 19),
    (anon_sym_comptime, ACTIONS 99), (anon_sym_assert, ACTIONS 23),
    (anon_sym___comptime_assert, ACTIONS 25), (anon_sym_return, ACTIONS 27),
    (anon_sym_del, ACTIONS 29), (anon_sym_raise, ACTIONS 31), (anon_sym_pass, ACTIONS 33),
    (anon_sym_break, ACTIONS 35), (anon_sym_continue, ACTIONS 37),
    (anon_sym___extension, ACTIONS 101), (anon_sym___mlir_region, ACTIONS 103),
    (anon_sym_if, ACTIONS 105), (anon_sym_match, ACTIONS 107), (anon_sym_async, ACTIONS 109),
    (anon_sym_for, ACTIONS 111), (anon_sym_while, ACTIONS 113), (anon_sym_try, ACTIONS 115),
    (anon_sym_with, ACTIONS 117), (anon_sym_def, ACTIONS 119), (anon_sym_fn, ACTIONS 119),
    (anon_sym_LBRACK, ACTIONS 59), (anon_sym_LBRACE, ACTIONS 61), (anon_sym_global, ACTIONS 63),
    (anon_sym_nonlocal, ACTIONS 65), (anon_sym_exec, ACTIONS 67), (anon_sym_type, ACTIONS 69),
    (anon_sym_class, ACTIONS 121), (anon_sym_struct, ACTIONS 121), (anon_sym_mut, ACTIONS 73),
    (anon_sym_out, ACTIONS 73), (anon_sym_trait, ACTIONS 123), (anon_sym_AT, ACTIONS 77),
    (anon_sym_DASH, ACTIONS 79), (anon_sym_PLUS, ACTIONS 79), (anon_sym_ref, ACTIONS 81),
    (anon_sym_var, ACTIONS 81), (anon_sym_not, ACTIONS 83), (anon_sym_TILDE, ACTIONS 79),
    (anon_sym_lambda, ACTIONS 85), (anon_sym_yield, ACTIONS 87), (sym_ellipsis, ACTIONS 89),
    (anon_sym___mlir_type, ACTIONS 91), (sym_integer, ACTIONS 93), (sym_float, ACTIONS 89),
    (anon_sym_await, ACTIONS 95), (sym_true, ACTIONS 93), (sym_false, ACTIONS 93),
    (sym_none, ACTIONS 93), (sym_comment, ACTIONS 3), (sym_line_continuation, ACTIONS 3),
    (sym__dedent, ACTIONS 125), (sym_string_start, ACTIONS 97)]"

definition parse_table_510 :: "(nat \<times> nat) list" where "parse_table_510 = [
    (sym__statement, STATE 927), (sym__simple_statements, STATE 927),
    (sym_import_statement, STATE 11814), (sym_future_import_statement, STATE 11814),
    (sym_import_from_statement, STATE 11814), (sym_print_statement, STATE 11814),
    (sym_assert_statement, STATE 11814), (sym_comptime_assert_statement, STATE 11814),
    (sym_expression_statement, STATE 11814), (sym_tuple_expression, STATE 12425),
    (sym_named_expression, STATE 7969), (sym__named_expression_lhs, STATE 12752),
    (sym_return_statement, STATE 11814), (sym_delete_statement, STATE 11814),
    (sym_raise_statement, STATE 11814), (sym_pass_statement, STATE 11814),
    (sym_break_statement, STATE 11814), (sym_continue_statement, STATE 11814),
    (sym_extension_definition, STATE 927), (sym_mlir_region, STATE 927),
    (sym_comptime_statement, STATE 927), (sym_if_statement, STATE 927),
    (sym_match_statement, STATE 927), (sym_for_statement, STATE 927),
    (sym_while_statement, STATE 927), (sym_try_statement, STATE 927),
    (sym_with_statement, STATE 927), (sym_function_definition, STATE 927),
    (sym_global_statement, STATE 11814), (sym_nonlocal_statement, STATE 11814),
    (sym_exec_statement, STATE 11814), (sym_type_alias_statement, STATE 11814),
    (sym_parameterized_alias_statement, STATE 11814), (sym_class_definition, STATE 927),
    (sym_trait_definition, STATE 927), (sym_decorated_definition, STATE 927),
    (sym_decorator, STATE 3670), (sym_block, STATE 4739), (sym_pattern, STATE 8086),
    (sym_tuple_pattern, STATE 8101), (sym_list_pattern, STATE 8101),
    (sym_list_splat_pattern, STATE 6819), (sym_as_pattern, STATE 7969),
    (sym_expression, STATE 9883), (sym_primary_expression, STATE 7326),
    (sym_comptime_expression, STATE 7017), (sym_transfer_expression, STATE 7017),
    (sym_not_operator, STATE 7969), (sym_boolean_operator, STATE 7969),
    (sym_binary_operator, STATE 7017), (sym_unary_operator, STATE 7017),
    (sym_comparison_operator, STATE 7969), (sym_lambda, STATE 7969),
    (sym_assignment, STATE 12425), (sym_augmented_assignment, STATE 12425),
    (sym_pattern_list, STATE 8578), (sym_yield, STATE 12425), (sym_attribute, STATE 6836),
    (sym_subscript, STATE 6838), (sym_call, STATE 6845), (sym_mlir_type, STATE 7017),
    (sym_list, STATE 7017), (sym_set, STATE 7017), (sym_tuple, STATE 7017),
    (sym_dictionary, STATE 7017), (sym_struct_literal, STATE 7017),
    (sym_list_comprehension, STATE 7017), (sym_dictionary_comprehension, STATE 7017),
    (sym_set_comprehension, STATE 7017), (sym_generator_expression, STATE 7017),
    (sym_parenthesized_expression, STATE 7017), (sym_conditional_expression, STATE 7969),
    (sym_concatenated_string, STATE 7017), (sym_string, STATE 6751), (sym_await, STATE 7017),
    (aux_sym_module_repeat1, STATE 927), (aux_sym_decorated_definition_repeat1, STATE 3670),
    (sym_identifier, ACTIONS 9), (anon_sym_import, ACTIONS 11), (anon_sym_from, ACTIONS 13),
    (anon_sym_LPAREN, ACTIONS 15), (anon_sym_STAR, ACTIONS 17), (anon_sym_print, ACTIONS 19),
    (anon_sym_comptime, ACTIONS 99), (anon_sym_assert, ACTIONS 23),
    (anon_sym___comptime_assert, ACTIONS 25), (anon_sym_return, ACTIONS 27),
    (anon_sym_del, ACTIONS 29), (anon_sym_raise, ACTIONS 31), (anon_sym_pass, ACTIONS 33),
    (anon_sym_break, ACTIONS 35), (anon_sym_continue, ACTIONS 37),
    (anon_sym___extension, ACTIONS 101), (anon_sym___mlir_region, ACTIONS 103),
    (anon_sym_if, ACTIONS 105), (anon_sym_match, ACTIONS 107), (anon_sym_async, ACTIONS 109),
    (anon_sym_for, ACTIONS 111), (anon_sym_while, ACTIONS 113), (anon_sym_try, ACTIONS 115),
    (anon_sym_with, ACTIONS 117), (anon_sym_def, ACTIONS 119), (anon_sym_fn, ACTIONS 119),
    (anon_sym_LBRACK, ACTIONS 59), (anon_sym_LBRACE, ACTIONS 61), (anon_sym_global, ACTIONS 63),
    (anon_sym_nonlocal, ACTIONS 65), (anon_sym_exec, ACTIONS 67), (anon_sym_type, ACTIONS 69),
    (anon_sym_class, ACTIONS 121), (anon_sym_struct, ACTIONS 121), (anon_sym_mut, ACTIONS 73),
    (anon_sym_out, ACTIONS 73), (anon_sym_trait, ACTIONS 123), (anon_sym_AT, ACTIONS 77),
    (anon_sym_DASH, ACTIONS 79), (anon_sym_PLUS, ACTIONS 79), (anon_sym_ref, ACTIONS 81),
    (anon_sym_var, ACTIONS 81), (anon_sym_not, ACTIONS 83), (anon_sym_TILDE, ACTIONS 79),
    (anon_sym_lambda, ACTIONS 85), (anon_sym_yield, ACTIONS 87), (sym_ellipsis, ACTIONS 89),
    (anon_sym___mlir_type, ACTIONS 91), (sym_integer, ACTIONS 93), (sym_float, ACTIONS 89),
    (anon_sym_await, ACTIONS 95), (sym_true, ACTIONS 93), (sym_false, ACTIONS 93),
    (sym_none, ACTIONS 93), (sym_comment, ACTIONS 3), (sym_line_continuation, ACTIONS 3),
    (sym__dedent, ACTIONS 125), (sym_string_start, ACTIONS 97)]"

definition parse_table_511 :: "(nat \<times> nat) list" where "parse_table_511 = [
    (sym__statement, STATE 927), (sym__simple_statements, STATE 927),
    (sym_import_statement, STATE 11814), (sym_future_import_statement, STATE 11814),
    (sym_import_from_statement, STATE 11814), (sym_print_statement, STATE 11814),
    (sym_assert_statement, STATE 11814), (sym_comptime_assert_statement, STATE 11814),
    (sym_expression_statement, STATE 11814), (sym_tuple_expression, STATE 12425),
    (sym_named_expression, STATE 7969), (sym__named_expression_lhs, STATE 12752),
    (sym_return_statement, STATE 11814), (sym_delete_statement, STATE 11814),
    (sym_raise_statement, STATE 11814), (sym_pass_statement, STATE 11814),
    (sym_break_statement, STATE 11814), (sym_continue_statement, STATE 11814),
    (sym_extension_definition, STATE 927), (sym_mlir_region, STATE 927),
    (sym_comptime_statement, STATE 927), (sym_if_statement, STATE 927),
    (sym_match_statement, STATE 927), (sym_for_statement, STATE 927),
    (sym_while_statement, STATE 927), (sym_try_statement, STATE 927),
    (sym_with_statement, STATE 927), (sym_function_definition, STATE 927),
    (sym_global_statement, STATE 11814), (sym_nonlocal_statement, STATE 11814),
    (sym_exec_statement, STATE 11814), (sym_type_alias_statement, STATE 11814),
    (sym_parameterized_alias_statement, STATE 11814), (sym_class_definition, STATE 927),
    (sym_trait_definition, STATE 927), (sym_decorated_definition, STATE 927),
    (sym_decorator, STATE 3670), (sym_block, STATE 4745), (sym_pattern, STATE 8086),
    (sym_tuple_pattern, STATE 8101), (sym_list_pattern, STATE 8101),
    (sym_list_splat_pattern, STATE 6819), (sym_as_pattern, STATE 7969),
    (sym_expression, STATE 9883), (sym_primary_expression, STATE 7326),
    (sym_comptime_expression, STATE 7017), (sym_transfer_expression, STATE 7017),
    (sym_not_operator, STATE 7969), (sym_boolean_operator, STATE 7969),
    (sym_binary_operator, STATE 7017), (sym_unary_operator, STATE 7017),
    (sym_comparison_operator, STATE 7969), (sym_lambda, STATE 7969),
    (sym_assignment, STATE 12425), (sym_augmented_assignment, STATE 12425),
    (sym_pattern_list, STATE 8578), (sym_yield, STATE 12425), (sym_attribute, STATE 6836),
    (sym_subscript, STATE 6838), (sym_call, STATE 6845), (sym_mlir_type, STATE 7017),
    (sym_list, STATE 7017), (sym_set, STATE 7017), (sym_tuple, STATE 7017),
    (sym_dictionary, STATE 7017), (sym_struct_literal, STATE 7017),
    (sym_list_comprehension, STATE 7017), (sym_dictionary_comprehension, STATE 7017),
    (sym_set_comprehension, STATE 7017), (sym_generator_expression, STATE 7017),
    (sym_parenthesized_expression, STATE 7017), (sym_conditional_expression, STATE 7969),
    (sym_concatenated_string, STATE 7017), (sym_string, STATE 6751), (sym_await, STATE 7017),
    (aux_sym_module_repeat1, STATE 927), (aux_sym_decorated_definition_repeat1, STATE 3670),
    (sym_identifier, ACTIONS 9), (anon_sym_import, ACTIONS 11), (anon_sym_from, ACTIONS 13),
    (anon_sym_LPAREN, ACTIONS 15), (anon_sym_STAR, ACTIONS 17), (anon_sym_print, ACTIONS 19),
    (anon_sym_comptime, ACTIONS 99), (anon_sym_assert, ACTIONS 23),
    (anon_sym___comptime_assert, ACTIONS 25), (anon_sym_return, ACTIONS 27),
    (anon_sym_del, ACTIONS 29), (anon_sym_raise, ACTIONS 31), (anon_sym_pass, ACTIONS 33),
    (anon_sym_break, ACTIONS 35), (anon_sym_continue, ACTIONS 37),
    (anon_sym___extension, ACTIONS 101), (anon_sym___mlir_region, ACTIONS 103),
    (anon_sym_if, ACTIONS 105), (anon_sym_match, ACTIONS 107), (anon_sym_async, ACTIONS 109),
    (anon_sym_for, ACTIONS 111), (anon_sym_while, ACTIONS 113), (anon_sym_try, ACTIONS 115),
    (anon_sym_with, ACTIONS 117), (anon_sym_def, ACTIONS 119), (anon_sym_fn, ACTIONS 119),
    (anon_sym_LBRACK, ACTIONS 59), (anon_sym_LBRACE, ACTIONS 61), (anon_sym_global, ACTIONS 63),
    (anon_sym_nonlocal, ACTIONS 65), (anon_sym_exec, ACTIONS 67), (anon_sym_type, ACTIONS 69),
    (anon_sym_class, ACTIONS 121), (anon_sym_struct, ACTIONS 121), (anon_sym_mut, ACTIONS 73),
    (anon_sym_out, ACTIONS 73), (anon_sym_trait, ACTIONS 123), (anon_sym_AT, ACTIONS 77),
    (anon_sym_DASH, ACTIONS 79), (anon_sym_PLUS, ACTIONS 79), (anon_sym_ref, ACTIONS 81),
    (anon_sym_var, ACTIONS 81), (anon_sym_not, ACTIONS 83), (anon_sym_TILDE, ACTIONS 79),
    (anon_sym_lambda, ACTIONS 85), (anon_sym_yield, ACTIONS 87), (sym_ellipsis, ACTIONS 89),
    (anon_sym___mlir_type, ACTIONS 91), (sym_integer, ACTIONS 93), (sym_float, ACTIONS 89),
    (anon_sym_await, ACTIONS 95), (sym_true, ACTIONS 93), (sym_false, ACTIONS 93),
    (sym_none, ACTIONS 93), (sym_comment, ACTIONS 3), (sym_line_continuation, ACTIONS 3),
    (sym__dedent, ACTIONS 125), (sym_string_start, ACTIONS 97)]"

definition parse_table_512 :: "(nat \<times> nat) list" where "parse_table_512 = [
    (sym__statement, STATE 927), (sym__simple_statements, STATE 927),
    (sym_import_statement, STATE 11814), (sym_future_import_statement, STATE 11814),
    (sym_import_from_statement, STATE 11814), (sym_print_statement, STATE 11814),
    (sym_assert_statement, STATE 11814), (sym_comptime_assert_statement, STATE 11814),
    (sym_expression_statement, STATE 11814), (sym_tuple_expression, STATE 12425),
    (sym_named_expression, STATE 7969), (sym__named_expression_lhs, STATE 12752),
    (sym_return_statement, STATE 11814), (sym_delete_statement, STATE 11814),
    (sym_raise_statement, STATE 11814), (sym_pass_statement, STATE 11814),
    (sym_break_statement, STATE 11814), (sym_continue_statement, STATE 11814),
    (sym_extension_definition, STATE 927), (sym_mlir_region, STATE 927),
    (sym_comptime_statement, STATE 927), (sym_if_statement, STATE 927),
    (sym_match_statement, STATE 927), (sym_for_statement, STATE 927),
    (sym_while_statement, STATE 927), (sym_try_statement, STATE 927),
    (sym_with_statement, STATE 927), (sym_function_definition, STATE 927),
    (sym_global_statement, STATE 11814), (sym_nonlocal_statement, STATE 11814),
    (sym_exec_statement, STATE 11814), (sym_type_alias_statement, STATE 11814),
    (sym_parameterized_alias_statement, STATE 11814), (sym_class_definition, STATE 927),
    (sym_trait_definition, STATE 927), (sym_decorated_definition, STATE 927),
    (sym_decorator, STATE 3670), (sym_block, STATE 4746), (sym_pattern, STATE 8086),
    (sym_tuple_pattern, STATE 8101), (sym_list_pattern, STATE 8101),
    (sym_list_splat_pattern, STATE 6819), (sym_as_pattern, STATE 7969),
    (sym_expression, STATE 9883), (sym_primary_expression, STATE 7326),
    (sym_comptime_expression, STATE 7017), (sym_transfer_expression, STATE 7017),
    (sym_not_operator, STATE 7969), (sym_boolean_operator, STATE 7969),
    (sym_binary_operator, STATE 7017), (sym_unary_operator, STATE 7017),
    (sym_comparison_operator, STATE 7969), (sym_lambda, STATE 7969),
    (sym_assignment, STATE 12425), (sym_augmented_assignment, STATE 12425),
    (sym_pattern_list, STATE 8578), (sym_yield, STATE 12425), (sym_attribute, STATE 6836),
    (sym_subscript, STATE 6838), (sym_call, STATE 6845), (sym_mlir_type, STATE 7017),
    (sym_list, STATE 7017), (sym_set, STATE 7017), (sym_tuple, STATE 7017),
    (sym_dictionary, STATE 7017), (sym_struct_literal, STATE 7017),
    (sym_list_comprehension, STATE 7017), (sym_dictionary_comprehension, STATE 7017),
    (sym_set_comprehension, STATE 7017), (sym_generator_expression, STATE 7017),
    (sym_parenthesized_expression, STATE 7017), (sym_conditional_expression, STATE 7969),
    (sym_concatenated_string, STATE 7017), (sym_string, STATE 6751), (sym_await, STATE 7017),
    (aux_sym_module_repeat1, STATE 927), (aux_sym_decorated_definition_repeat1, STATE 3670),
    (sym_identifier, ACTIONS 9), (anon_sym_import, ACTIONS 11), (anon_sym_from, ACTIONS 13),
    (anon_sym_LPAREN, ACTIONS 15), (anon_sym_STAR, ACTIONS 17), (anon_sym_print, ACTIONS 19),
    (anon_sym_comptime, ACTIONS 99), (anon_sym_assert, ACTIONS 23),
    (anon_sym___comptime_assert, ACTIONS 25), (anon_sym_return, ACTIONS 27),
    (anon_sym_del, ACTIONS 29), (anon_sym_raise, ACTIONS 31), (anon_sym_pass, ACTIONS 33),
    (anon_sym_break, ACTIONS 35), (anon_sym_continue, ACTIONS 37),
    (anon_sym___extension, ACTIONS 101), (anon_sym___mlir_region, ACTIONS 103),
    (anon_sym_if, ACTIONS 105), (anon_sym_match, ACTIONS 107), (anon_sym_async, ACTIONS 109),
    (anon_sym_for, ACTIONS 111), (anon_sym_while, ACTIONS 113), (anon_sym_try, ACTIONS 115),
    (anon_sym_with, ACTIONS 117), (anon_sym_def, ACTIONS 119), (anon_sym_fn, ACTIONS 119),
    (anon_sym_LBRACK, ACTIONS 59), (anon_sym_LBRACE, ACTIONS 61), (anon_sym_global, ACTIONS 63),
    (anon_sym_nonlocal, ACTIONS 65), (anon_sym_exec, ACTIONS 67), (anon_sym_type, ACTIONS 69),
    (anon_sym_class, ACTIONS 121), (anon_sym_struct, ACTIONS 121), (anon_sym_mut, ACTIONS 73),
    (anon_sym_out, ACTIONS 73), (anon_sym_trait, ACTIONS 123), (anon_sym_AT, ACTIONS 77),
    (anon_sym_DASH, ACTIONS 79), (anon_sym_PLUS, ACTIONS 79), (anon_sym_ref, ACTIONS 81),
    (anon_sym_var, ACTIONS 81), (anon_sym_not, ACTIONS 83), (anon_sym_TILDE, ACTIONS 79),
    (anon_sym_lambda, ACTIONS 85), (anon_sym_yield, ACTIONS 87), (sym_ellipsis, ACTIONS 89),
    (anon_sym___mlir_type, ACTIONS 91), (sym_integer, ACTIONS 93), (sym_float, ACTIONS 89),
    (anon_sym_await, ACTIONS 95), (sym_true, ACTIONS 93), (sym_false, ACTIONS 93),
    (sym_none, ACTIONS 93), (sym_comment, ACTIONS 3), (sym_line_continuation, ACTIONS 3),
    (sym__dedent, ACTIONS 125), (sym_string_start, ACTIONS 97)]"

definition parse_table_513 :: "(nat \<times> nat) list" where "parse_table_513 = [
    (sym__statement, STATE 927), (sym__simple_statements, STATE 927),
    (sym_import_statement, STATE 11814), (sym_future_import_statement, STATE 11814),
    (sym_import_from_statement, STATE 11814), (sym_print_statement, STATE 11814),
    (sym_assert_statement, STATE 11814), (sym_comptime_assert_statement, STATE 11814),
    (sym_expression_statement, STATE 11814), (sym_tuple_expression, STATE 12425),
    (sym_named_expression, STATE 7969), (sym__named_expression_lhs, STATE 12752),
    (sym_return_statement, STATE 11814), (sym_delete_statement, STATE 11814),
    (sym_raise_statement, STATE 11814), (sym_pass_statement, STATE 11814),
    (sym_break_statement, STATE 11814), (sym_continue_statement, STATE 11814),
    (sym_extension_definition, STATE 927), (sym_mlir_region, STATE 927),
    (sym_comptime_statement, STATE 927), (sym_if_statement, STATE 927),
    (sym_match_statement, STATE 927), (sym_for_statement, STATE 927),
    (sym_while_statement, STATE 927), (sym_try_statement, STATE 927),
    (sym_with_statement, STATE 927), (sym_function_definition, STATE 927),
    (sym_global_statement, STATE 11814), (sym_nonlocal_statement, STATE 11814),
    (sym_exec_statement, STATE 11814), (sym_type_alias_statement, STATE 11814),
    (sym_parameterized_alias_statement, STATE 11814), (sym_class_definition, STATE 927),
    (sym_trait_definition, STATE 927), (sym_decorated_definition, STATE 927),
    (sym_decorator, STATE 3670), (sym_block, STATE 4755), (sym_pattern, STATE 8086),
    (sym_tuple_pattern, STATE 8101), (sym_list_pattern, STATE 8101),
    (sym_list_splat_pattern, STATE 6819), (sym_as_pattern, STATE 7969),
    (sym_expression, STATE 9883), (sym_primary_expression, STATE 7326),
    (sym_comptime_expression, STATE 7017), (sym_transfer_expression, STATE 7017),
    (sym_not_operator, STATE 7969), (sym_boolean_operator, STATE 7969),
    (sym_binary_operator, STATE 7017), (sym_unary_operator, STATE 7017),
    (sym_comparison_operator, STATE 7969), (sym_lambda, STATE 7969),
    (sym_assignment, STATE 12425), (sym_augmented_assignment, STATE 12425),
    (sym_pattern_list, STATE 8578), (sym_yield, STATE 12425), (sym_attribute, STATE 6836),
    (sym_subscript, STATE 6838), (sym_call, STATE 6845), (sym_mlir_type, STATE 7017),
    (sym_list, STATE 7017), (sym_set, STATE 7017), (sym_tuple, STATE 7017),
    (sym_dictionary, STATE 7017), (sym_struct_literal, STATE 7017),
    (sym_list_comprehension, STATE 7017), (sym_dictionary_comprehension, STATE 7017),
    (sym_set_comprehension, STATE 7017), (sym_generator_expression, STATE 7017),
    (sym_parenthesized_expression, STATE 7017), (sym_conditional_expression, STATE 7969),
    (sym_concatenated_string, STATE 7017), (sym_string, STATE 6751), (sym_await, STATE 7017),
    (aux_sym_module_repeat1, STATE 927), (aux_sym_decorated_definition_repeat1, STATE 3670),
    (sym_identifier, ACTIONS 9), (anon_sym_import, ACTIONS 11), (anon_sym_from, ACTIONS 13),
    (anon_sym_LPAREN, ACTIONS 15), (anon_sym_STAR, ACTIONS 17), (anon_sym_print, ACTIONS 19),
    (anon_sym_comptime, ACTIONS 99), (anon_sym_assert, ACTIONS 23),
    (anon_sym___comptime_assert, ACTIONS 25), (anon_sym_return, ACTIONS 27),
    (anon_sym_del, ACTIONS 29), (anon_sym_raise, ACTIONS 31), (anon_sym_pass, ACTIONS 33),
    (anon_sym_break, ACTIONS 35), (anon_sym_continue, ACTIONS 37),
    (anon_sym___extension, ACTIONS 101), (anon_sym___mlir_region, ACTIONS 103),
    (anon_sym_if, ACTIONS 105), (anon_sym_match, ACTIONS 107), (anon_sym_async, ACTIONS 109),
    (anon_sym_for, ACTIONS 111), (anon_sym_while, ACTIONS 113), (anon_sym_try, ACTIONS 115),
    (anon_sym_with, ACTIONS 117), (anon_sym_def, ACTIONS 119), (anon_sym_fn, ACTIONS 119),
    (anon_sym_LBRACK, ACTIONS 59), (anon_sym_LBRACE, ACTIONS 61), (anon_sym_global, ACTIONS 63),
    (anon_sym_nonlocal, ACTIONS 65), (anon_sym_exec, ACTIONS 67), (anon_sym_type, ACTIONS 69),
    (anon_sym_class, ACTIONS 121), (anon_sym_struct, ACTIONS 121), (anon_sym_mut, ACTIONS 73),
    (anon_sym_out, ACTIONS 73), (anon_sym_trait, ACTIONS 123), (anon_sym_AT, ACTIONS 77),
    (anon_sym_DASH, ACTIONS 79), (anon_sym_PLUS, ACTIONS 79), (anon_sym_ref, ACTIONS 81),
    (anon_sym_var, ACTIONS 81), (anon_sym_not, ACTIONS 83), (anon_sym_TILDE, ACTIONS 79),
    (anon_sym_lambda, ACTIONS 85), (anon_sym_yield, ACTIONS 87), (sym_ellipsis, ACTIONS 89),
    (anon_sym___mlir_type, ACTIONS 91), (sym_integer, ACTIONS 93), (sym_float, ACTIONS 89),
    (anon_sym_await, ACTIONS 95), (sym_true, ACTIONS 93), (sym_false, ACTIONS 93),
    (sym_none, ACTIONS 93), (sym_comment, ACTIONS 3), (sym_line_continuation, ACTIONS 3),
    (sym__dedent, ACTIONS 125), (sym_string_start, ACTIONS 97)]"

definition parse_table_514 :: "(nat \<times> nat) list" where "parse_table_514 = [
    (sym__statement, STATE 927), (sym__simple_statements, STATE 927),
    (sym_import_statement, STATE 11814), (sym_future_import_statement, STATE 11814),
    (sym_import_from_statement, STATE 11814), (sym_print_statement, STATE 11814),
    (sym_assert_statement, STATE 11814), (sym_comptime_assert_statement, STATE 11814),
    (sym_expression_statement, STATE 11814), (sym_tuple_expression, STATE 12425),
    (sym_named_expression, STATE 7969), (sym__named_expression_lhs, STATE 12752),
    (sym_return_statement, STATE 11814), (sym_delete_statement, STATE 11814),
    (sym_raise_statement, STATE 11814), (sym_pass_statement, STATE 11814),
    (sym_break_statement, STATE 11814), (sym_continue_statement, STATE 11814),
    (sym_extension_definition, STATE 927), (sym_mlir_region, STATE 927),
    (sym_comptime_statement, STATE 927), (sym_if_statement, STATE 927),
    (sym_match_statement, STATE 927), (sym_for_statement, STATE 927),
    (sym_while_statement, STATE 927), (sym_try_statement, STATE 927),
    (sym_with_statement, STATE 927), (sym_function_definition, STATE 927),
    (sym_global_statement, STATE 11814), (sym_nonlocal_statement, STATE 11814),
    (sym_exec_statement, STATE 11814), (sym_type_alias_statement, STATE 11814),
    (sym_parameterized_alias_statement, STATE 11814), (sym_class_definition, STATE 927),
    (sym_trait_definition, STATE 927), (sym_decorated_definition, STATE 927),
    (sym_decorator, STATE 3670), (sym_block, STATE 4758), (sym_pattern, STATE 8086),
    (sym_tuple_pattern, STATE 8101), (sym_list_pattern, STATE 8101),
    (sym_list_splat_pattern, STATE 6819), (sym_as_pattern, STATE 7969),
    (sym_expression, STATE 9883), (sym_primary_expression, STATE 7326),
    (sym_comptime_expression, STATE 7017), (sym_transfer_expression, STATE 7017),
    (sym_not_operator, STATE 7969), (sym_boolean_operator, STATE 7969),
    (sym_binary_operator, STATE 7017), (sym_unary_operator, STATE 7017),
    (sym_comparison_operator, STATE 7969), (sym_lambda, STATE 7969),
    (sym_assignment, STATE 12425), (sym_augmented_assignment, STATE 12425),
    (sym_pattern_list, STATE 8578), (sym_yield, STATE 12425), (sym_attribute, STATE 6836),
    (sym_subscript, STATE 6838), (sym_call, STATE 6845), (sym_mlir_type, STATE 7017),
    (sym_list, STATE 7017), (sym_set, STATE 7017), (sym_tuple, STATE 7017),
    (sym_dictionary, STATE 7017), (sym_struct_literal, STATE 7017),
    (sym_list_comprehension, STATE 7017), (sym_dictionary_comprehension, STATE 7017),
    (sym_set_comprehension, STATE 7017), (sym_generator_expression, STATE 7017),
    (sym_parenthesized_expression, STATE 7017), (sym_conditional_expression, STATE 7969),
    (sym_concatenated_string, STATE 7017), (sym_string, STATE 6751), (sym_await, STATE 7017),
    (aux_sym_module_repeat1, STATE 927), (aux_sym_decorated_definition_repeat1, STATE 3670),
    (sym_identifier, ACTIONS 9), (anon_sym_import, ACTIONS 11), (anon_sym_from, ACTIONS 13),
    (anon_sym_LPAREN, ACTIONS 15), (anon_sym_STAR, ACTIONS 17), (anon_sym_print, ACTIONS 19),
    (anon_sym_comptime, ACTIONS 99), (anon_sym_assert, ACTIONS 23),
    (anon_sym___comptime_assert, ACTIONS 25), (anon_sym_return, ACTIONS 27),
    (anon_sym_del, ACTIONS 29), (anon_sym_raise, ACTIONS 31), (anon_sym_pass, ACTIONS 33),
    (anon_sym_break, ACTIONS 35), (anon_sym_continue, ACTIONS 37),
    (anon_sym___extension, ACTIONS 101), (anon_sym___mlir_region, ACTIONS 103),
    (anon_sym_if, ACTIONS 105), (anon_sym_match, ACTIONS 107), (anon_sym_async, ACTIONS 109),
    (anon_sym_for, ACTIONS 111), (anon_sym_while, ACTIONS 113), (anon_sym_try, ACTIONS 115),
    (anon_sym_with, ACTIONS 117), (anon_sym_def, ACTIONS 119), (anon_sym_fn, ACTIONS 119),
    (anon_sym_LBRACK, ACTIONS 59), (anon_sym_LBRACE, ACTIONS 61), (anon_sym_global, ACTIONS 63),
    (anon_sym_nonlocal, ACTIONS 65), (anon_sym_exec, ACTIONS 67), (anon_sym_type, ACTIONS 69),
    (anon_sym_class, ACTIONS 121), (anon_sym_struct, ACTIONS 121), (anon_sym_mut, ACTIONS 73),
    (anon_sym_out, ACTIONS 73), (anon_sym_trait, ACTIONS 123), (anon_sym_AT, ACTIONS 77),
    (anon_sym_DASH, ACTIONS 79), (anon_sym_PLUS, ACTIONS 79), (anon_sym_ref, ACTIONS 81),
    (anon_sym_var, ACTIONS 81), (anon_sym_not, ACTIONS 83), (anon_sym_TILDE, ACTIONS 79),
    (anon_sym_lambda, ACTIONS 85), (anon_sym_yield, ACTIONS 87), (sym_ellipsis, ACTIONS 89),
    (anon_sym___mlir_type, ACTIONS 91), (sym_integer, ACTIONS 93), (sym_float, ACTIONS 89),
    (anon_sym_await, ACTIONS 95), (sym_true, ACTIONS 93), (sym_false, ACTIONS 93),
    (sym_none, ACTIONS 93), (sym_comment, ACTIONS 3), (sym_line_continuation, ACTIONS 3),
    (sym__dedent, ACTIONS 125), (sym_string_start, ACTIONS 97)]"

definition parse_table_515 :: "(nat \<times> nat) list" where "parse_table_515 = [
    (sym__statement, STATE 927), (sym__simple_statements, STATE 927),
    (sym_import_statement, STATE 11814), (sym_future_import_statement, STATE 11814),
    (sym_import_from_statement, STATE 11814), (sym_print_statement, STATE 11814),
    (sym_assert_statement, STATE 11814), (sym_comptime_assert_statement, STATE 11814),
    (sym_expression_statement, STATE 11814), (sym_tuple_expression, STATE 12425),
    (sym_named_expression, STATE 7969), (sym__named_expression_lhs, STATE 12752),
    (sym_return_statement, STATE 11814), (sym_delete_statement, STATE 11814),
    (sym_raise_statement, STATE 11814), (sym_pass_statement, STATE 11814),
    (sym_break_statement, STATE 11814), (sym_continue_statement, STATE 11814),
    (sym_extension_definition, STATE 927), (sym_mlir_region, STATE 927),
    (sym_comptime_statement, STATE 927), (sym_if_statement, STATE 927),
    (sym_match_statement, STATE 927), (sym_for_statement, STATE 927),
    (sym_while_statement, STATE 927), (sym_try_statement, STATE 927),
    (sym_with_statement, STATE 927), (sym_function_definition, STATE 927),
    (sym_global_statement, STATE 11814), (sym_nonlocal_statement, STATE 11814),
    (sym_exec_statement, STATE 11814), (sym_type_alias_statement, STATE 11814),
    (sym_parameterized_alias_statement, STATE 11814), (sym_class_definition, STATE 927),
    (sym_trait_definition, STATE 927), (sym_decorated_definition, STATE 927),
    (sym_decorator, STATE 3670), (sym_block, STATE 4762), (sym_pattern, STATE 8086),
    (sym_tuple_pattern, STATE 8101), (sym_list_pattern, STATE 8101),
    (sym_list_splat_pattern, STATE 6819), (sym_as_pattern, STATE 7969),
    (sym_expression, STATE 9883), (sym_primary_expression, STATE 7326),
    (sym_comptime_expression, STATE 7017), (sym_transfer_expression, STATE 7017),
    (sym_not_operator, STATE 7969), (sym_boolean_operator, STATE 7969),
    (sym_binary_operator, STATE 7017), (sym_unary_operator, STATE 7017),
    (sym_comparison_operator, STATE 7969), (sym_lambda, STATE 7969),
    (sym_assignment, STATE 12425), (sym_augmented_assignment, STATE 12425),
    (sym_pattern_list, STATE 8578), (sym_yield, STATE 12425), (sym_attribute, STATE 6836),
    (sym_subscript, STATE 6838), (sym_call, STATE 6845), (sym_mlir_type, STATE 7017),
    (sym_list, STATE 7017), (sym_set, STATE 7017), (sym_tuple, STATE 7017),
    (sym_dictionary, STATE 7017), (sym_struct_literal, STATE 7017),
    (sym_list_comprehension, STATE 7017), (sym_dictionary_comprehension, STATE 7017),
    (sym_set_comprehension, STATE 7017), (sym_generator_expression, STATE 7017),
    (sym_parenthesized_expression, STATE 7017), (sym_conditional_expression, STATE 7969),
    (sym_concatenated_string, STATE 7017), (sym_string, STATE 6751), (sym_await, STATE 7017),
    (aux_sym_module_repeat1, STATE 927), (aux_sym_decorated_definition_repeat1, STATE 3670),
    (sym_identifier, ACTIONS 9), (anon_sym_import, ACTIONS 11), (anon_sym_from, ACTIONS 13),
    (anon_sym_LPAREN, ACTIONS 15), (anon_sym_STAR, ACTIONS 17), (anon_sym_print, ACTIONS 19),
    (anon_sym_comptime, ACTIONS 99), (anon_sym_assert, ACTIONS 23),
    (anon_sym___comptime_assert, ACTIONS 25), (anon_sym_return, ACTIONS 27),
    (anon_sym_del, ACTIONS 29), (anon_sym_raise, ACTIONS 31), (anon_sym_pass, ACTIONS 33),
    (anon_sym_break, ACTIONS 35), (anon_sym_continue, ACTIONS 37),
    (anon_sym___extension, ACTIONS 101), (anon_sym___mlir_region, ACTIONS 103),
    (anon_sym_if, ACTIONS 105), (anon_sym_match, ACTIONS 107), (anon_sym_async, ACTIONS 109),
    (anon_sym_for, ACTIONS 111), (anon_sym_while, ACTIONS 113), (anon_sym_try, ACTIONS 115),
    (anon_sym_with, ACTIONS 117), (anon_sym_def, ACTIONS 119), (anon_sym_fn, ACTIONS 119),
    (anon_sym_LBRACK, ACTIONS 59), (anon_sym_LBRACE, ACTIONS 61), (anon_sym_global, ACTIONS 63),
    (anon_sym_nonlocal, ACTIONS 65), (anon_sym_exec, ACTIONS 67), (anon_sym_type, ACTIONS 69),
    (anon_sym_class, ACTIONS 121), (anon_sym_struct, ACTIONS 121), (anon_sym_mut, ACTIONS 73),
    (anon_sym_out, ACTIONS 73), (anon_sym_trait, ACTIONS 123), (anon_sym_AT, ACTIONS 77),
    (anon_sym_DASH, ACTIONS 79), (anon_sym_PLUS, ACTIONS 79), (anon_sym_ref, ACTIONS 81),
    (anon_sym_var, ACTIONS 81), (anon_sym_not, ACTIONS 83), (anon_sym_TILDE, ACTIONS 79),
    (anon_sym_lambda, ACTIONS 85), (anon_sym_yield, ACTIONS 87), (sym_ellipsis, ACTIONS 89),
    (anon_sym___mlir_type, ACTIONS 91), (sym_integer, ACTIONS 93), (sym_float, ACTIONS 89),
    (anon_sym_await, ACTIONS 95), (sym_true, ACTIONS 93), (sym_false, ACTIONS 93),
    (sym_none, ACTIONS 93), (sym_comment, ACTIONS 3), (sym_line_continuation, ACTIONS 3),
    (sym__dedent, ACTIONS 125), (sym_string_start, ACTIONS 97)]"

definition parse_table_516 :: "(nat \<times> nat) list" where "parse_table_516 = [
    (sym__statement, STATE 927), (sym__simple_statements, STATE 927),
    (sym_import_statement, STATE 11814), (sym_future_import_statement, STATE 11814),
    (sym_import_from_statement, STATE 11814), (sym_print_statement, STATE 11814),
    (sym_assert_statement, STATE 11814), (sym_comptime_assert_statement, STATE 11814),
    (sym_expression_statement, STATE 11814), (sym_tuple_expression, STATE 12425),
    (sym_named_expression, STATE 7969), (sym__named_expression_lhs, STATE 12752),
    (sym_return_statement, STATE 11814), (sym_delete_statement, STATE 11814),
    (sym_raise_statement, STATE 11814), (sym_pass_statement, STATE 11814),
    (sym_break_statement, STATE 11814), (sym_continue_statement, STATE 11814),
    (sym_extension_definition, STATE 927), (sym_mlir_region, STATE 927),
    (sym_comptime_statement, STATE 927), (sym_if_statement, STATE 927),
    (sym_match_statement, STATE 927), (sym_for_statement, STATE 927),
    (sym_while_statement, STATE 927), (sym_try_statement, STATE 927),
    (sym_with_statement, STATE 927), (sym_function_definition, STATE 927),
    (sym_global_statement, STATE 11814), (sym_nonlocal_statement, STATE 11814),
    (sym_exec_statement, STATE 11814), (sym_type_alias_statement, STATE 11814),
    (sym_parameterized_alias_statement, STATE 11814), (sym_class_definition, STATE 927),
    (sym_trait_definition, STATE 927), (sym_decorated_definition, STATE 927),
    (sym_decorator, STATE 3670), (sym_block, STATE 4765), (sym_pattern, STATE 8086),
    (sym_tuple_pattern, STATE 8101), (sym_list_pattern, STATE 8101),
    (sym_list_splat_pattern, STATE 6819), (sym_as_pattern, STATE 7969),
    (sym_expression, STATE 9883), (sym_primary_expression, STATE 7326),
    (sym_comptime_expression, STATE 7017), (sym_transfer_expression, STATE 7017),
    (sym_not_operator, STATE 7969), (sym_boolean_operator, STATE 7969),
    (sym_binary_operator, STATE 7017), (sym_unary_operator, STATE 7017),
    (sym_comparison_operator, STATE 7969), (sym_lambda, STATE 7969),
    (sym_assignment, STATE 12425), (sym_augmented_assignment, STATE 12425),
    (sym_pattern_list, STATE 8578), (sym_yield, STATE 12425), (sym_attribute, STATE 6836),
    (sym_subscript, STATE 6838), (sym_call, STATE 6845), (sym_mlir_type, STATE 7017),
    (sym_list, STATE 7017), (sym_set, STATE 7017), (sym_tuple, STATE 7017),
    (sym_dictionary, STATE 7017), (sym_struct_literal, STATE 7017),
    (sym_list_comprehension, STATE 7017), (sym_dictionary_comprehension, STATE 7017),
    (sym_set_comprehension, STATE 7017), (sym_generator_expression, STATE 7017),
    (sym_parenthesized_expression, STATE 7017), (sym_conditional_expression, STATE 7969),
    (sym_concatenated_string, STATE 7017), (sym_string, STATE 6751), (sym_await, STATE 7017),
    (aux_sym_module_repeat1, STATE 927), (aux_sym_decorated_definition_repeat1, STATE 3670),
    (sym_identifier, ACTIONS 9), (anon_sym_import, ACTIONS 11), (anon_sym_from, ACTIONS 13),
    (anon_sym_LPAREN, ACTIONS 15), (anon_sym_STAR, ACTIONS 17), (anon_sym_print, ACTIONS 19),
    (anon_sym_comptime, ACTIONS 99), (anon_sym_assert, ACTIONS 23),
    (anon_sym___comptime_assert, ACTIONS 25), (anon_sym_return, ACTIONS 27),
    (anon_sym_del, ACTIONS 29), (anon_sym_raise, ACTIONS 31), (anon_sym_pass, ACTIONS 33),
    (anon_sym_break, ACTIONS 35), (anon_sym_continue, ACTIONS 37),
    (anon_sym___extension, ACTIONS 101), (anon_sym___mlir_region, ACTIONS 103),
    (anon_sym_if, ACTIONS 105), (anon_sym_match, ACTIONS 107), (anon_sym_async, ACTIONS 109),
    (anon_sym_for, ACTIONS 111), (anon_sym_while, ACTIONS 113), (anon_sym_try, ACTIONS 115),
    (anon_sym_with, ACTIONS 117), (anon_sym_def, ACTIONS 119), (anon_sym_fn, ACTIONS 119),
    (anon_sym_LBRACK, ACTIONS 59), (anon_sym_LBRACE, ACTIONS 61), (anon_sym_global, ACTIONS 63),
    (anon_sym_nonlocal, ACTIONS 65), (anon_sym_exec, ACTIONS 67), (anon_sym_type, ACTIONS 69),
    (anon_sym_class, ACTIONS 121), (anon_sym_struct, ACTIONS 121), (anon_sym_mut, ACTIONS 73),
    (anon_sym_out, ACTIONS 73), (anon_sym_trait, ACTIONS 123), (anon_sym_AT, ACTIONS 77),
    (anon_sym_DASH, ACTIONS 79), (anon_sym_PLUS, ACTIONS 79), (anon_sym_ref, ACTIONS 81),
    (anon_sym_var, ACTIONS 81), (anon_sym_not, ACTIONS 83), (anon_sym_TILDE, ACTIONS 79),
    (anon_sym_lambda, ACTIONS 85), (anon_sym_yield, ACTIONS 87), (sym_ellipsis, ACTIONS 89),
    (anon_sym___mlir_type, ACTIONS 91), (sym_integer, ACTIONS 93), (sym_float, ACTIONS 89),
    (anon_sym_await, ACTIONS 95), (sym_true, ACTIONS 93), (sym_false, ACTIONS 93),
    (sym_none, ACTIONS 93), (sym_comment, ACTIONS 3), (sym_line_continuation, ACTIONS 3),
    (sym__dedent, ACTIONS 125), (sym_string_start, ACTIONS 97)]"

definition parse_table_517 :: "(nat \<times> nat) list" where "parse_table_517 = [
    (sym__statement, STATE 927), (sym__simple_statements, STATE 927),
    (sym_import_statement, STATE 11814), (sym_future_import_statement, STATE 11814),
    (sym_import_from_statement, STATE 11814), (sym_print_statement, STATE 11814),
    (sym_assert_statement, STATE 11814), (sym_comptime_assert_statement, STATE 11814),
    (sym_expression_statement, STATE 11814), (sym_tuple_expression, STATE 12425),
    (sym_named_expression, STATE 7969), (sym__named_expression_lhs, STATE 12752),
    (sym_return_statement, STATE 11814), (sym_delete_statement, STATE 11814),
    (sym_raise_statement, STATE 11814), (sym_pass_statement, STATE 11814),
    (sym_break_statement, STATE 11814), (sym_continue_statement, STATE 11814),
    (sym_extension_definition, STATE 927), (sym_mlir_region, STATE 927),
    (sym_comptime_statement, STATE 927), (sym_if_statement, STATE 927),
    (sym_match_statement, STATE 927), (sym_for_statement, STATE 927),
    (sym_while_statement, STATE 927), (sym_try_statement, STATE 927),
    (sym_with_statement, STATE 927), (sym_function_definition, STATE 927),
    (sym_global_statement, STATE 11814), (sym_nonlocal_statement, STATE 11814),
    (sym_exec_statement, STATE 11814), (sym_type_alias_statement, STATE 11814),
    (sym_parameterized_alias_statement, STATE 11814), (sym_class_definition, STATE 927),
    (sym_trait_definition, STATE 927), (sym_decorated_definition, STATE 927),
    (sym_decorator, STATE 3670), (sym_block, STATE 4773), (sym_pattern, STATE 8086),
    (sym_tuple_pattern, STATE 8101), (sym_list_pattern, STATE 8101),
    (sym_list_splat_pattern, STATE 6819), (sym_as_pattern, STATE 7969),
    (sym_expression, STATE 9883), (sym_primary_expression, STATE 7326),
    (sym_comptime_expression, STATE 7017), (sym_transfer_expression, STATE 7017),
    (sym_not_operator, STATE 7969), (sym_boolean_operator, STATE 7969),
    (sym_binary_operator, STATE 7017), (sym_unary_operator, STATE 7017),
    (sym_comparison_operator, STATE 7969), (sym_lambda, STATE 7969),
    (sym_assignment, STATE 12425), (sym_augmented_assignment, STATE 12425),
    (sym_pattern_list, STATE 8578), (sym_yield, STATE 12425), (sym_attribute, STATE 6836),
    (sym_subscript, STATE 6838), (sym_call, STATE 6845), (sym_mlir_type, STATE 7017),
    (sym_list, STATE 7017), (sym_set, STATE 7017), (sym_tuple, STATE 7017),
    (sym_dictionary, STATE 7017), (sym_struct_literal, STATE 7017),
    (sym_list_comprehension, STATE 7017), (sym_dictionary_comprehension, STATE 7017),
    (sym_set_comprehension, STATE 7017), (sym_generator_expression, STATE 7017),
    (sym_parenthesized_expression, STATE 7017), (sym_conditional_expression, STATE 7969),
    (sym_concatenated_string, STATE 7017), (sym_string, STATE 6751), (sym_await, STATE 7017),
    (aux_sym_module_repeat1, STATE 927), (aux_sym_decorated_definition_repeat1, STATE 3670),
    (sym_identifier, ACTIONS 9), (anon_sym_import, ACTIONS 11), (anon_sym_from, ACTIONS 13),
    (anon_sym_LPAREN, ACTIONS 15), (anon_sym_STAR, ACTIONS 17), (anon_sym_print, ACTIONS 19),
    (anon_sym_comptime, ACTIONS 99), (anon_sym_assert, ACTIONS 23),
    (anon_sym___comptime_assert, ACTIONS 25), (anon_sym_return, ACTIONS 27),
    (anon_sym_del, ACTIONS 29), (anon_sym_raise, ACTIONS 31), (anon_sym_pass, ACTIONS 33),
    (anon_sym_break, ACTIONS 35), (anon_sym_continue, ACTIONS 37),
    (anon_sym___extension, ACTIONS 101), (anon_sym___mlir_region, ACTIONS 103),
    (anon_sym_if, ACTIONS 105), (anon_sym_match, ACTIONS 107), (anon_sym_async, ACTIONS 109),
    (anon_sym_for, ACTIONS 111), (anon_sym_while, ACTIONS 113), (anon_sym_try, ACTIONS 115),
    (anon_sym_with, ACTIONS 117), (anon_sym_def, ACTIONS 119), (anon_sym_fn, ACTIONS 119),
    (anon_sym_LBRACK, ACTIONS 59), (anon_sym_LBRACE, ACTIONS 61), (anon_sym_global, ACTIONS 63),
    (anon_sym_nonlocal, ACTIONS 65), (anon_sym_exec, ACTIONS 67), (anon_sym_type, ACTIONS 69),
    (anon_sym_class, ACTIONS 121), (anon_sym_struct, ACTIONS 121), (anon_sym_mut, ACTIONS 73),
    (anon_sym_out, ACTIONS 73), (anon_sym_trait, ACTIONS 123), (anon_sym_AT, ACTIONS 77),
    (anon_sym_DASH, ACTIONS 79), (anon_sym_PLUS, ACTIONS 79), (anon_sym_ref, ACTIONS 81),
    (anon_sym_var, ACTIONS 81), (anon_sym_not, ACTIONS 83), (anon_sym_TILDE, ACTIONS 79),
    (anon_sym_lambda, ACTIONS 85), (anon_sym_yield, ACTIONS 87), (sym_ellipsis, ACTIONS 89),
    (anon_sym___mlir_type, ACTIONS 91), (sym_integer, ACTIONS 93), (sym_float, ACTIONS 89),
    (anon_sym_await, ACTIONS 95), (sym_true, ACTIONS 93), (sym_false, ACTIONS 93),
    (sym_none, ACTIONS 93), (sym_comment, ACTIONS 3), (sym_line_continuation, ACTIONS 3),
    (sym__dedent, ACTIONS 125), (sym_string_start, ACTIONS 97)]"

definition parse_table_518 :: "(nat \<times> nat) list" where "parse_table_518 = [
    (sym__statement, STATE 927), (sym__simple_statements, STATE 927),
    (sym_import_statement, STATE 11814), (sym_future_import_statement, STATE 11814),
    (sym_import_from_statement, STATE 11814), (sym_print_statement, STATE 11814),
    (sym_assert_statement, STATE 11814), (sym_comptime_assert_statement, STATE 11814),
    (sym_expression_statement, STATE 11814), (sym_tuple_expression, STATE 12425),
    (sym_named_expression, STATE 7969), (sym__named_expression_lhs, STATE 12752),
    (sym_return_statement, STATE 11814), (sym_delete_statement, STATE 11814),
    (sym_raise_statement, STATE 11814), (sym_pass_statement, STATE 11814),
    (sym_break_statement, STATE 11814), (sym_continue_statement, STATE 11814),
    (sym_extension_definition, STATE 927), (sym_mlir_region, STATE 927),
    (sym_comptime_statement, STATE 927), (sym_if_statement, STATE 927),
    (sym_match_statement, STATE 927), (sym_for_statement, STATE 927),
    (sym_while_statement, STATE 927), (sym_try_statement, STATE 927),
    (sym_with_statement, STATE 927), (sym_function_definition, STATE 927),
    (sym_global_statement, STATE 11814), (sym_nonlocal_statement, STATE 11814),
    (sym_exec_statement, STATE 11814), (sym_type_alias_statement, STATE 11814),
    (sym_parameterized_alias_statement, STATE 11814), (sym_class_definition, STATE 927),
    (sym_trait_definition, STATE 927), (sym_decorated_definition, STATE 927),
    (sym_decorator, STATE 3670), (sym_block, STATE 4776), (sym_pattern, STATE 8086),
    (sym_tuple_pattern, STATE 8101), (sym_list_pattern, STATE 8101),
    (sym_list_splat_pattern, STATE 6819), (sym_as_pattern, STATE 7969),
    (sym_expression, STATE 9883), (sym_primary_expression, STATE 7326),
    (sym_comptime_expression, STATE 7017), (sym_transfer_expression, STATE 7017),
    (sym_not_operator, STATE 7969), (sym_boolean_operator, STATE 7969),
    (sym_binary_operator, STATE 7017), (sym_unary_operator, STATE 7017),
    (sym_comparison_operator, STATE 7969), (sym_lambda, STATE 7969),
    (sym_assignment, STATE 12425), (sym_augmented_assignment, STATE 12425),
    (sym_pattern_list, STATE 8578), (sym_yield, STATE 12425), (sym_attribute, STATE 6836),
    (sym_subscript, STATE 6838), (sym_call, STATE 6845), (sym_mlir_type, STATE 7017),
    (sym_list, STATE 7017), (sym_set, STATE 7017), (sym_tuple, STATE 7017),
    (sym_dictionary, STATE 7017), (sym_struct_literal, STATE 7017),
    (sym_list_comprehension, STATE 7017), (sym_dictionary_comprehension, STATE 7017),
    (sym_set_comprehension, STATE 7017), (sym_generator_expression, STATE 7017),
    (sym_parenthesized_expression, STATE 7017), (sym_conditional_expression, STATE 7969),
    (sym_concatenated_string, STATE 7017), (sym_string, STATE 6751), (sym_await, STATE 7017),
    (aux_sym_module_repeat1, STATE 927), (aux_sym_decorated_definition_repeat1, STATE 3670),
    (sym_identifier, ACTIONS 9), (anon_sym_import, ACTIONS 11), (anon_sym_from, ACTIONS 13),
    (anon_sym_LPAREN, ACTIONS 15), (anon_sym_STAR, ACTIONS 17), (anon_sym_print, ACTIONS 19),
    (anon_sym_comptime, ACTIONS 99), (anon_sym_assert, ACTIONS 23),
    (anon_sym___comptime_assert, ACTIONS 25), (anon_sym_return, ACTIONS 27),
    (anon_sym_del, ACTIONS 29), (anon_sym_raise, ACTIONS 31), (anon_sym_pass, ACTIONS 33),
    (anon_sym_break, ACTIONS 35), (anon_sym_continue, ACTIONS 37),
    (anon_sym___extension, ACTIONS 101), (anon_sym___mlir_region, ACTIONS 103),
    (anon_sym_if, ACTIONS 105), (anon_sym_match, ACTIONS 107), (anon_sym_async, ACTIONS 109),
    (anon_sym_for, ACTIONS 111), (anon_sym_while, ACTIONS 113), (anon_sym_try, ACTIONS 115),
    (anon_sym_with, ACTIONS 117), (anon_sym_def, ACTIONS 119), (anon_sym_fn, ACTIONS 119),
    (anon_sym_LBRACK, ACTIONS 59), (anon_sym_LBRACE, ACTIONS 61), (anon_sym_global, ACTIONS 63),
    (anon_sym_nonlocal, ACTIONS 65), (anon_sym_exec, ACTIONS 67), (anon_sym_type, ACTIONS 69),
    (anon_sym_class, ACTIONS 121), (anon_sym_struct, ACTIONS 121), (anon_sym_mut, ACTIONS 73),
    (anon_sym_out, ACTIONS 73), (anon_sym_trait, ACTIONS 123), (anon_sym_AT, ACTIONS 77),
    (anon_sym_DASH, ACTIONS 79), (anon_sym_PLUS, ACTIONS 79), (anon_sym_ref, ACTIONS 81),
    (anon_sym_var, ACTIONS 81), (anon_sym_not, ACTIONS 83), (anon_sym_TILDE, ACTIONS 79),
    (anon_sym_lambda, ACTIONS 85), (anon_sym_yield, ACTIONS 87), (sym_ellipsis, ACTIONS 89),
    (anon_sym___mlir_type, ACTIONS 91), (sym_integer, ACTIONS 93), (sym_float, ACTIONS 89),
    (anon_sym_await, ACTIONS 95), (sym_true, ACTIONS 93), (sym_false, ACTIONS 93),
    (sym_none, ACTIONS 93), (sym_comment, ACTIONS 3), (sym_line_continuation, ACTIONS 3),
    (sym__dedent, ACTIONS 125), (sym_string_start, ACTIONS 97)]"

definition parse_table_519 :: "(nat \<times> nat) list" where "parse_table_519 = [
    (sym__statement, STATE 927), (sym__simple_statements, STATE 927),
    (sym_import_statement, STATE 11814), (sym_future_import_statement, STATE 11814),
    (sym_import_from_statement, STATE 11814), (sym_print_statement, STATE 11814),
    (sym_assert_statement, STATE 11814), (sym_comptime_assert_statement, STATE 11814),
    (sym_expression_statement, STATE 11814), (sym_tuple_expression, STATE 12425),
    (sym_named_expression, STATE 7969), (sym__named_expression_lhs, STATE 12752),
    (sym_return_statement, STATE 11814), (sym_delete_statement, STATE 11814),
    (sym_raise_statement, STATE 11814), (sym_pass_statement, STATE 11814),
    (sym_break_statement, STATE 11814), (sym_continue_statement, STATE 11814),
    (sym_extension_definition, STATE 927), (sym_mlir_region, STATE 927),
    (sym_comptime_statement, STATE 927), (sym_if_statement, STATE 927),
    (sym_match_statement, STATE 927), (sym_for_statement, STATE 927),
    (sym_while_statement, STATE 927), (sym_try_statement, STATE 927),
    (sym_with_statement, STATE 927), (sym_function_definition, STATE 927),
    (sym_global_statement, STATE 11814), (sym_nonlocal_statement, STATE 11814),
    (sym_exec_statement, STATE 11814), (sym_type_alias_statement, STATE 11814),
    (sym_parameterized_alias_statement, STATE 11814), (sym_class_definition, STATE 927),
    (sym_trait_definition, STATE 927), (sym_decorated_definition, STATE 927),
    (sym_decorator, STATE 3670), (sym_block, STATE 4782), (sym_pattern, STATE 8086),
    (sym_tuple_pattern, STATE 8101), (sym_list_pattern, STATE 8101),
    (sym_list_splat_pattern, STATE 6819), (sym_as_pattern, STATE 7969),
    (sym_expression, STATE 9883), (sym_primary_expression, STATE 7326),
    (sym_comptime_expression, STATE 7017), (sym_transfer_expression, STATE 7017),
    (sym_not_operator, STATE 7969), (sym_boolean_operator, STATE 7969),
    (sym_binary_operator, STATE 7017), (sym_unary_operator, STATE 7017),
    (sym_comparison_operator, STATE 7969), (sym_lambda, STATE 7969),
    (sym_assignment, STATE 12425), (sym_augmented_assignment, STATE 12425),
    (sym_pattern_list, STATE 8578), (sym_yield, STATE 12425), (sym_attribute, STATE 6836),
    (sym_subscript, STATE 6838), (sym_call, STATE 6845), (sym_mlir_type, STATE 7017),
    (sym_list, STATE 7017), (sym_set, STATE 7017), (sym_tuple, STATE 7017),
    (sym_dictionary, STATE 7017), (sym_struct_literal, STATE 7017),
    (sym_list_comprehension, STATE 7017), (sym_dictionary_comprehension, STATE 7017),
    (sym_set_comprehension, STATE 7017), (sym_generator_expression, STATE 7017),
    (sym_parenthesized_expression, STATE 7017), (sym_conditional_expression, STATE 7969),
    (sym_concatenated_string, STATE 7017), (sym_string, STATE 6751), (sym_await, STATE 7017),
    (aux_sym_module_repeat1, STATE 927), (aux_sym_decorated_definition_repeat1, STATE 3670),
    (sym_identifier, ACTIONS 9), (anon_sym_import, ACTIONS 11), (anon_sym_from, ACTIONS 13),
    (anon_sym_LPAREN, ACTIONS 15), (anon_sym_STAR, ACTIONS 17), (anon_sym_print, ACTIONS 19),
    (anon_sym_comptime, ACTIONS 99), (anon_sym_assert, ACTIONS 23),
    (anon_sym___comptime_assert, ACTIONS 25), (anon_sym_return, ACTIONS 27),
    (anon_sym_del, ACTIONS 29), (anon_sym_raise, ACTIONS 31), (anon_sym_pass, ACTIONS 33),
    (anon_sym_break, ACTIONS 35), (anon_sym_continue, ACTIONS 37),
    (anon_sym___extension, ACTIONS 101), (anon_sym___mlir_region, ACTIONS 103),
    (anon_sym_if, ACTIONS 105), (anon_sym_match, ACTIONS 107), (anon_sym_async, ACTIONS 109),
    (anon_sym_for, ACTIONS 111), (anon_sym_while, ACTIONS 113), (anon_sym_try, ACTIONS 115),
    (anon_sym_with, ACTIONS 117), (anon_sym_def, ACTIONS 119), (anon_sym_fn, ACTIONS 119),
    (anon_sym_LBRACK, ACTIONS 59), (anon_sym_LBRACE, ACTIONS 61), (anon_sym_global, ACTIONS 63),
    (anon_sym_nonlocal, ACTIONS 65), (anon_sym_exec, ACTIONS 67), (anon_sym_type, ACTIONS 69),
    (anon_sym_class, ACTIONS 121), (anon_sym_struct, ACTIONS 121), (anon_sym_mut, ACTIONS 73),
    (anon_sym_out, ACTIONS 73), (anon_sym_trait, ACTIONS 123), (anon_sym_AT, ACTIONS 77),
    (anon_sym_DASH, ACTIONS 79), (anon_sym_PLUS, ACTIONS 79), (anon_sym_ref, ACTIONS 81),
    (anon_sym_var, ACTIONS 81), (anon_sym_not, ACTIONS 83), (anon_sym_TILDE, ACTIONS 79),
    (anon_sym_lambda, ACTIONS 85), (anon_sym_yield, ACTIONS 87), (sym_ellipsis, ACTIONS 89),
    (anon_sym___mlir_type, ACTIONS 91), (sym_integer, ACTIONS 93), (sym_float, ACTIONS 89),
    (anon_sym_await, ACTIONS 95), (sym_true, ACTIONS 93), (sym_false, ACTIONS 93),
    (sym_none, ACTIONS 93), (sym_comment, ACTIONS 3), (sym_line_continuation, ACTIONS 3),
    (sym__dedent, ACTIONS 125), (sym_string_start, ACTIONS 97)]"

definition parse_table_520 :: "(nat \<times> nat) list" where "parse_table_520 = [
    (sym__statement, STATE 927), (sym__simple_statements, STATE 927),
    (sym_import_statement, STATE 11814), (sym_future_import_statement, STATE 11814),
    (sym_import_from_statement, STATE 11814), (sym_print_statement, STATE 11814),
    (sym_assert_statement, STATE 11814), (sym_comptime_assert_statement, STATE 11814),
    (sym_expression_statement, STATE 11814), (sym_tuple_expression, STATE 12425),
    (sym_named_expression, STATE 7969), (sym__named_expression_lhs, STATE 12752),
    (sym_return_statement, STATE 11814), (sym_delete_statement, STATE 11814),
    (sym_raise_statement, STATE 11814), (sym_pass_statement, STATE 11814),
    (sym_break_statement, STATE 11814), (sym_continue_statement, STATE 11814),
    (sym_extension_definition, STATE 927), (sym_mlir_region, STATE 927),
    (sym_comptime_statement, STATE 927), (sym_if_statement, STATE 927),
    (sym_match_statement, STATE 927), (sym_for_statement, STATE 927),
    (sym_while_statement, STATE 927), (sym_try_statement, STATE 927),
    (sym_with_statement, STATE 927), (sym_function_definition, STATE 927),
    (sym_global_statement, STATE 11814), (sym_nonlocal_statement, STATE 11814),
    (sym_exec_statement, STATE 11814), (sym_type_alias_statement, STATE 11814),
    (sym_parameterized_alias_statement, STATE 11814), (sym_class_definition, STATE 927),
    (sym_trait_definition, STATE 927), (sym_decorated_definition, STATE 927),
    (sym_decorator, STATE 3670), (sym_block, STATE 4805), (sym_pattern, STATE 8086),
    (sym_tuple_pattern, STATE 8101), (sym_list_pattern, STATE 8101),
    (sym_list_splat_pattern, STATE 6819), (sym_as_pattern, STATE 7969),
    (sym_expression, STATE 9883), (sym_primary_expression, STATE 7326),
    (sym_comptime_expression, STATE 7017), (sym_transfer_expression, STATE 7017),
    (sym_not_operator, STATE 7969), (sym_boolean_operator, STATE 7969),
    (sym_binary_operator, STATE 7017), (sym_unary_operator, STATE 7017),
    (sym_comparison_operator, STATE 7969), (sym_lambda, STATE 7969),
    (sym_assignment, STATE 12425), (sym_augmented_assignment, STATE 12425),
    (sym_pattern_list, STATE 8578), (sym_yield, STATE 12425), (sym_attribute, STATE 6836),
    (sym_subscript, STATE 6838), (sym_call, STATE 6845), (sym_mlir_type, STATE 7017),
    (sym_list, STATE 7017), (sym_set, STATE 7017), (sym_tuple, STATE 7017),
    (sym_dictionary, STATE 7017), (sym_struct_literal, STATE 7017),
    (sym_list_comprehension, STATE 7017), (sym_dictionary_comprehension, STATE 7017),
    (sym_set_comprehension, STATE 7017), (sym_generator_expression, STATE 7017),
    (sym_parenthesized_expression, STATE 7017), (sym_conditional_expression, STATE 7969),
    (sym_concatenated_string, STATE 7017), (sym_string, STATE 6751), (sym_await, STATE 7017),
    (aux_sym_module_repeat1, STATE 927), (aux_sym_decorated_definition_repeat1, STATE 3670),
    (sym_identifier, ACTIONS 9), (anon_sym_import, ACTIONS 11), (anon_sym_from, ACTIONS 13),
    (anon_sym_LPAREN, ACTIONS 15), (anon_sym_STAR, ACTIONS 17), (anon_sym_print, ACTIONS 19),
    (anon_sym_comptime, ACTIONS 99), (anon_sym_assert, ACTIONS 23),
    (anon_sym___comptime_assert, ACTIONS 25), (anon_sym_return, ACTIONS 27),
    (anon_sym_del, ACTIONS 29), (anon_sym_raise, ACTIONS 31), (anon_sym_pass, ACTIONS 33),
    (anon_sym_break, ACTIONS 35), (anon_sym_continue, ACTIONS 37),
    (anon_sym___extension, ACTIONS 101), (anon_sym___mlir_region, ACTIONS 103),
    (anon_sym_if, ACTIONS 105), (anon_sym_match, ACTIONS 107), (anon_sym_async, ACTIONS 109),
    (anon_sym_for, ACTIONS 111), (anon_sym_while, ACTIONS 113), (anon_sym_try, ACTIONS 115),
    (anon_sym_with, ACTIONS 117), (anon_sym_def, ACTIONS 119), (anon_sym_fn, ACTIONS 119),
    (anon_sym_LBRACK, ACTIONS 59), (anon_sym_LBRACE, ACTIONS 61), (anon_sym_global, ACTIONS 63),
    (anon_sym_nonlocal, ACTIONS 65), (anon_sym_exec, ACTIONS 67), (anon_sym_type, ACTIONS 69),
    (anon_sym_class, ACTIONS 121), (anon_sym_struct, ACTIONS 121), (anon_sym_mut, ACTIONS 73),
    (anon_sym_out, ACTIONS 73), (anon_sym_trait, ACTIONS 123), (anon_sym_AT, ACTIONS 77),
    (anon_sym_DASH, ACTIONS 79), (anon_sym_PLUS, ACTIONS 79), (anon_sym_ref, ACTIONS 81),
    (anon_sym_var, ACTIONS 81), (anon_sym_not, ACTIONS 83), (anon_sym_TILDE, ACTIONS 79),
    (anon_sym_lambda, ACTIONS 85), (anon_sym_yield, ACTIONS 87), (sym_ellipsis, ACTIONS 89),
    (anon_sym___mlir_type, ACTIONS 91), (sym_integer, ACTIONS 93), (sym_float, ACTIONS 89),
    (anon_sym_await, ACTIONS 95), (sym_true, ACTIONS 93), (sym_false, ACTIONS 93),
    (sym_none, ACTIONS 93), (sym_comment, ACTIONS 3), (sym_line_continuation, ACTIONS 3),
    (sym__dedent, ACTIONS 125), (sym_string_start, ACTIONS 97)]"

definition parse_table_521 :: "(nat \<times> nat) list" where "parse_table_521 = [
    (sym__statement, STATE 927), (sym__simple_statements, STATE 927),
    (sym_import_statement, STATE 11814), (sym_future_import_statement, STATE 11814),
    (sym_import_from_statement, STATE 11814), (sym_print_statement, STATE 11814),
    (sym_assert_statement, STATE 11814), (sym_comptime_assert_statement, STATE 11814),
    (sym_expression_statement, STATE 11814), (sym_tuple_expression, STATE 12425),
    (sym_named_expression, STATE 7969), (sym__named_expression_lhs, STATE 12752),
    (sym_return_statement, STATE 11814), (sym_delete_statement, STATE 11814),
    (sym_raise_statement, STATE 11814), (sym_pass_statement, STATE 11814),
    (sym_break_statement, STATE 11814), (sym_continue_statement, STATE 11814),
    (sym_extension_definition, STATE 927), (sym_mlir_region, STATE 927),
    (sym_comptime_statement, STATE 927), (sym_if_statement, STATE 927),
    (sym_match_statement, STATE 927), (sym_for_statement, STATE 927),
    (sym_while_statement, STATE 927), (sym_try_statement, STATE 927),
    (sym_with_statement, STATE 927), (sym_function_definition, STATE 927),
    (sym_global_statement, STATE 11814), (sym_nonlocal_statement, STATE 11814),
    (sym_exec_statement, STATE 11814), (sym_type_alias_statement, STATE 11814),
    (sym_parameterized_alias_statement, STATE 11814), (sym_class_definition, STATE 927),
    (sym_trait_definition, STATE 927), (sym_decorated_definition, STATE 927),
    (sym_decorator, STATE 3670), (sym_block, STATE 4813), (sym_pattern, STATE 8086),
    (sym_tuple_pattern, STATE 8101), (sym_list_pattern, STATE 8101),
    (sym_list_splat_pattern, STATE 6819), (sym_as_pattern, STATE 7969),
    (sym_expression, STATE 9883), (sym_primary_expression, STATE 7326),
    (sym_comptime_expression, STATE 7017), (sym_transfer_expression, STATE 7017),
    (sym_not_operator, STATE 7969), (sym_boolean_operator, STATE 7969),
    (sym_binary_operator, STATE 7017), (sym_unary_operator, STATE 7017),
    (sym_comparison_operator, STATE 7969), (sym_lambda, STATE 7969),
    (sym_assignment, STATE 12425), (sym_augmented_assignment, STATE 12425),
    (sym_pattern_list, STATE 8578), (sym_yield, STATE 12425), (sym_attribute, STATE 6836),
    (sym_subscript, STATE 6838), (sym_call, STATE 6845), (sym_mlir_type, STATE 7017),
    (sym_list, STATE 7017), (sym_set, STATE 7017), (sym_tuple, STATE 7017),
    (sym_dictionary, STATE 7017), (sym_struct_literal, STATE 7017),
    (sym_list_comprehension, STATE 7017), (sym_dictionary_comprehension, STATE 7017),
    (sym_set_comprehension, STATE 7017), (sym_generator_expression, STATE 7017),
    (sym_parenthesized_expression, STATE 7017), (sym_conditional_expression, STATE 7969),
    (sym_concatenated_string, STATE 7017), (sym_string, STATE 6751), (sym_await, STATE 7017),
    (aux_sym_module_repeat1, STATE 927), (aux_sym_decorated_definition_repeat1, STATE 3670),
    (sym_identifier, ACTIONS 9), (anon_sym_import, ACTIONS 11), (anon_sym_from, ACTIONS 13),
    (anon_sym_LPAREN, ACTIONS 15), (anon_sym_STAR, ACTIONS 17), (anon_sym_print, ACTIONS 19),
    (anon_sym_comptime, ACTIONS 99), (anon_sym_assert, ACTIONS 23),
    (anon_sym___comptime_assert, ACTIONS 25), (anon_sym_return, ACTIONS 27),
    (anon_sym_del, ACTIONS 29), (anon_sym_raise, ACTIONS 31), (anon_sym_pass, ACTIONS 33),
    (anon_sym_break, ACTIONS 35), (anon_sym_continue, ACTIONS 37),
    (anon_sym___extension, ACTIONS 101), (anon_sym___mlir_region, ACTIONS 103),
    (anon_sym_if, ACTIONS 105), (anon_sym_match, ACTIONS 107), (anon_sym_async, ACTIONS 109),
    (anon_sym_for, ACTIONS 111), (anon_sym_while, ACTIONS 113), (anon_sym_try, ACTIONS 115),
    (anon_sym_with, ACTIONS 117), (anon_sym_def, ACTIONS 119), (anon_sym_fn, ACTIONS 119),
    (anon_sym_LBRACK, ACTIONS 59), (anon_sym_LBRACE, ACTIONS 61), (anon_sym_global, ACTIONS 63),
    (anon_sym_nonlocal, ACTIONS 65), (anon_sym_exec, ACTIONS 67), (anon_sym_type, ACTIONS 69),
    (anon_sym_class, ACTIONS 121), (anon_sym_struct, ACTIONS 121), (anon_sym_mut, ACTIONS 73),
    (anon_sym_out, ACTIONS 73), (anon_sym_trait, ACTIONS 123), (anon_sym_AT, ACTIONS 77),
    (anon_sym_DASH, ACTIONS 79), (anon_sym_PLUS, ACTIONS 79), (anon_sym_ref, ACTIONS 81),
    (anon_sym_var, ACTIONS 81), (anon_sym_not, ACTIONS 83), (anon_sym_TILDE, ACTIONS 79),
    (anon_sym_lambda, ACTIONS 85), (anon_sym_yield, ACTIONS 87), (sym_ellipsis, ACTIONS 89),
    (anon_sym___mlir_type, ACTIONS 91), (sym_integer, ACTIONS 93), (sym_float, ACTIONS 89),
    (anon_sym_await, ACTIONS 95), (sym_true, ACTIONS 93), (sym_false, ACTIONS 93),
    (sym_none, ACTIONS 93), (sym_comment, ACTIONS 3), (sym_line_continuation, ACTIONS 3),
    (sym__dedent, ACTIONS 125), (sym_string_start, ACTIONS 97)]"

definition parse_table_522 :: "(nat \<times> nat) list" where "parse_table_522 = [
    (sym__statement, STATE 927), (sym__simple_statements, STATE 927),
    (sym_import_statement, STATE 11814), (sym_future_import_statement, STATE 11814),
    (sym_import_from_statement, STATE 11814), (sym_print_statement, STATE 11814),
    (sym_assert_statement, STATE 11814), (sym_comptime_assert_statement, STATE 11814),
    (sym_expression_statement, STATE 11814), (sym_tuple_expression, STATE 12425),
    (sym_named_expression, STATE 7969), (sym__named_expression_lhs, STATE 12752),
    (sym_return_statement, STATE 11814), (sym_delete_statement, STATE 11814),
    (sym_raise_statement, STATE 11814), (sym_pass_statement, STATE 11814),
    (sym_break_statement, STATE 11814), (sym_continue_statement, STATE 11814),
    (sym_extension_definition, STATE 927), (sym_mlir_region, STATE 927),
    (sym_comptime_statement, STATE 927), (sym_if_statement, STATE 927),
    (sym_match_statement, STATE 927), (sym_for_statement, STATE 927),
    (sym_while_statement, STATE 927), (sym_try_statement, STATE 927),
    (sym_with_statement, STATE 927), (sym_function_definition, STATE 927),
    (sym_global_statement, STATE 11814), (sym_nonlocal_statement, STATE 11814),
    (sym_exec_statement, STATE 11814), (sym_type_alias_statement, STATE 11814),
    (sym_parameterized_alias_statement, STATE 11814), (sym_class_definition, STATE 927),
    (sym_trait_definition, STATE 927), (sym_decorated_definition, STATE 927),
    (sym_decorator, STATE 3670), (sym_block, STATE 4819), (sym_pattern, STATE 8086),
    (sym_tuple_pattern, STATE 8101), (sym_list_pattern, STATE 8101),
    (sym_list_splat_pattern, STATE 6819), (sym_as_pattern, STATE 7969),
    (sym_expression, STATE 9883), (sym_primary_expression, STATE 7326),
    (sym_comptime_expression, STATE 7017), (sym_transfer_expression, STATE 7017),
    (sym_not_operator, STATE 7969), (sym_boolean_operator, STATE 7969),
    (sym_binary_operator, STATE 7017), (sym_unary_operator, STATE 7017),
    (sym_comparison_operator, STATE 7969), (sym_lambda, STATE 7969),
    (sym_assignment, STATE 12425), (sym_augmented_assignment, STATE 12425),
    (sym_pattern_list, STATE 8578), (sym_yield, STATE 12425), (sym_attribute, STATE 6836),
    (sym_subscript, STATE 6838), (sym_call, STATE 6845), (sym_mlir_type, STATE 7017),
    (sym_list, STATE 7017), (sym_set, STATE 7017), (sym_tuple, STATE 7017),
    (sym_dictionary, STATE 7017), (sym_struct_literal, STATE 7017),
    (sym_list_comprehension, STATE 7017), (sym_dictionary_comprehension, STATE 7017),
    (sym_set_comprehension, STATE 7017), (sym_generator_expression, STATE 7017),
    (sym_parenthesized_expression, STATE 7017), (sym_conditional_expression, STATE 7969),
    (sym_concatenated_string, STATE 7017), (sym_string, STATE 6751), (sym_await, STATE 7017),
    (aux_sym_module_repeat1, STATE 927), (aux_sym_decorated_definition_repeat1, STATE 3670),
    (sym_identifier, ACTIONS 9), (anon_sym_import, ACTIONS 11), (anon_sym_from, ACTIONS 13),
    (anon_sym_LPAREN, ACTIONS 15), (anon_sym_STAR, ACTIONS 17), (anon_sym_print, ACTIONS 19),
    (anon_sym_comptime, ACTIONS 99), (anon_sym_assert, ACTIONS 23),
    (anon_sym___comptime_assert, ACTIONS 25), (anon_sym_return, ACTIONS 27),
    (anon_sym_del, ACTIONS 29), (anon_sym_raise, ACTIONS 31), (anon_sym_pass, ACTIONS 33),
    (anon_sym_break, ACTIONS 35), (anon_sym_continue, ACTIONS 37),
    (anon_sym___extension, ACTIONS 101), (anon_sym___mlir_region, ACTIONS 103),
    (anon_sym_if, ACTIONS 105), (anon_sym_match, ACTIONS 107), (anon_sym_async, ACTIONS 109),
    (anon_sym_for, ACTIONS 111), (anon_sym_while, ACTIONS 113), (anon_sym_try, ACTIONS 115),
    (anon_sym_with, ACTIONS 117), (anon_sym_def, ACTIONS 119), (anon_sym_fn, ACTIONS 119),
    (anon_sym_LBRACK, ACTIONS 59), (anon_sym_LBRACE, ACTIONS 61), (anon_sym_global, ACTIONS 63),
    (anon_sym_nonlocal, ACTIONS 65), (anon_sym_exec, ACTIONS 67), (anon_sym_type, ACTIONS 69),
    (anon_sym_class, ACTIONS 121), (anon_sym_struct, ACTIONS 121), (anon_sym_mut, ACTIONS 73),
    (anon_sym_out, ACTIONS 73), (anon_sym_trait, ACTIONS 123), (anon_sym_AT, ACTIONS 77),
    (anon_sym_DASH, ACTIONS 79), (anon_sym_PLUS, ACTIONS 79), (anon_sym_ref, ACTIONS 81),
    (anon_sym_var, ACTIONS 81), (anon_sym_not, ACTIONS 83), (anon_sym_TILDE, ACTIONS 79),
    (anon_sym_lambda, ACTIONS 85), (anon_sym_yield, ACTIONS 87), (sym_ellipsis, ACTIONS 89),
    (anon_sym___mlir_type, ACTIONS 91), (sym_integer, ACTIONS 93), (sym_float, ACTIONS 89),
    (anon_sym_await, ACTIONS 95), (sym_true, ACTIONS 93), (sym_false, ACTIONS 93),
    (sym_none, ACTIONS 93), (sym_comment, ACTIONS 3), (sym_line_continuation, ACTIONS 3),
    (sym__dedent, ACTIONS 125), (sym_string_start, ACTIONS 97)]"

definition parse_table_523 :: "(nat \<times> nat) list" where "parse_table_523 = [
    (sym__statement, STATE 922), (sym__simple_statements, STATE 922),
    (sym_import_statement, STATE 11814), (sym_future_import_statement, STATE 11814),
    (sym_import_from_statement, STATE 11814), (sym_print_statement, STATE 11814),
    (sym_assert_statement, STATE 11814), (sym_comptime_assert_statement, STATE 11814),
    (sym_expression_statement, STATE 11814), (sym_tuple_expression, STATE 12425),
    (sym_named_expression, STATE 7969), (sym__named_expression_lhs, STATE 12752),
    (sym_return_statement, STATE 11814), (sym_delete_statement, STATE 11814),
    (sym_raise_statement, STATE 11814), (sym_pass_statement, STATE 11814),
    (sym_break_statement, STATE 11814), (sym_continue_statement, STATE 11814),
    (sym_extension_definition, STATE 922), (sym_mlir_region, STATE 922),
    (sym_comptime_statement, STATE 922), (sym_if_statement, STATE 922),
    (sym_match_statement, STATE 922), (sym_for_statement, STATE 922),
    (sym_while_statement, STATE 922), (sym_try_statement, STATE 922),
    (sym_with_statement, STATE 922), (sym_function_definition, STATE 922),
    (sym_global_statement, STATE 11814), (sym_nonlocal_statement, STATE 11814),
    (sym_exec_statement, STATE 11814), (sym_type_alias_statement, STATE 11814),
    (sym_parameterized_alias_statement, STATE 11814), (sym_class_definition, STATE 922),
    (sym_trait_definition, STATE 922), (sym_decorated_definition, STATE 922),
    (sym_decorator, STATE 3670), (sym_block, STATE 9724), (sym_pattern, STATE 8086),
    (sym_tuple_pattern, STATE 8101), (sym_list_pattern, STATE 8101),
    (sym_list_splat_pattern, STATE 6819), (sym_as_pattern, STATE 7969),
    (sym_expression, STATE 9883), (sym_primary_expression, STATE 7326),
    (sym_comptime_expression, STATE 7017), (sym_transfer_expression, STATE 7017),
    (sym_not_operator, STATE 7969), (sym_boolean_operator, STATE 7969),
    (sym_binary_operator, STATE 7017), (sym_unary_operator, STATE 7017),
    (sym_comparison_operator, STATE 7969), (sym_lambda, STATE 7969),
    (sym_assignment, STATE 12425), (sym_augmented_assignment, STATE 12425),
    (sym_pattern_list, STATE 8578), (sym_yield, STATE 12425), (sym_attribute, STATE 6836),
    (sym_subscript, STATE 6838), (sym_call, STATE 6845), (sym_mlir_type, STATE 7017),
    (sym_list, STATE 7017), (sym_set, STATE 7017), (sym_tuple, STATE 7017),
    (sym_dictionary, STATE 7017), (sym_struct_literal, STATE 7017),
    (sym_list_comprehension, STATE 7017), (sym_dictionary_comprehension, STATE 7017),
    (sym_set_comprehension, STATE 7017), (sym_generator_expression, STATE 7017),
    (sym_parenthesized_expression, STATE 7017), (sym_conditional_expression, STATE 7969),
    (sym_concatenated_string, STATE 7017), (sym_string, STATE 6751), (sym_await, STATE 7017),
    (aux_sym_module_repeat1, STATE 922), (aux_sym_decorated_definition_repeat1, STATE 3670),
    (sym_identifier, ACTIONS 9), (anon_sym_import, ACTIONS 11), (anon_sym_from, ACTIONS 13),
    (anon_sym_LPAREN, ACTIONS 15), (anon_sym_STAR, ACTIONS 17), (anon_sym_print, ACTIONS 19),
    (anon_sym_comptime, ACTIONS 99), (anon_sym_assert, ACTIONS 23),
    (anon_sym___comptime_assert, ACTIONS 25), (anon_sym_return, ACTIONS 27),
    (anon_sym_del, ACTIONS 29), (anon_sym_raise, ACTIONS 31), (anon_sym_pass, ACTIONS 33),
    (anon_sym_break, ACTIONS 35), (anon_sym_continue, ACTIONS 37),
    (anon_sym___extension, ACTIONS 101), (anon_sym___mlir_region, ACTIONS 103),
    (anon_sym_if, ACTIONS 105), (anon_sym_match, ACTIONS 107), (anon_sym_async, ACTIONS 109),
    (anon_sym_for, ACTIONS 111), (anon_sym_while, ACTIONS 113), (anon_sym_try, ACTIONS 115),
    (anon_sym_with, ACTIONS 117), (anon_sym_def, ACTIONS 119), (anon_sym_fn, ACTIONS 119),
    (anon_sym_LBRACK, ACTIONS 59), (anon_sym_LBRACE, ACTIONS 61), (anon_sym_global, ACTIONS 63),
    (anon_sym_nonlocal, ACTIONS 65), (anon_sym_exec, ACTIONS 67), (anon_sym_type, ACTIONS 69),
    (anon_sym_class, ACTIONS 121), (anon_sym_struct, ACTIONS 121), (anon_sym_mut, ACTIONS 73),
    (anon_sym_out, ACTIONS 73), (anon_sym_trait, ACTIONS 123), (anon_sym_AT, ACTIONS 77),
    (anon_sym_DASH, ACTIONS 79), (anon_sym_PLUS, ACTIONS 79), (anon_sym_ref, ACTIONS 81),
    (anon_sym_var, ACTIONS 81), (anon_sym_not, ACTIONS 83), (anon_sym_TILDE, ACTIONS 79),
    (anon_sym_lambda, ACTIONS 85), (anon_sym_yield, ACTIONS 87), (sym_ellipsis, ACTIONS 89),
    (anon_sym___mlir_type, ACTIONS 91), (sym_integer, ACTIONS 93), (sym_float, ACTIONS 89),
    (anon_sym_await, ACTIONS 95), (sym_true, ACTIONS 93), (sym_false, ACTIONS 93),
    (sym_none, ACTIONS 93), (sym_comment, ACTIONS 3), (sym_line_continuation, ACTIONS 3),
    (sym__dedent, ACTIONS 127), (sym_string_start, ACTIONS 97)]"

definition parse_table_524 :: "(nat \<times> nat) list" where "parse_table_524 = [
    (sym__statement, STATE 927), (sym__simple_statements, STATE 927),
    (sym_import_statement, STATE 11814), (sym_future_import_statement, STATE 11814),
    (sym_import_from_statement, STATE 11814), (sym_print_statement, STATE 11814),
    (sym_assert_statement, STATE 11814), (sym_comptime_assert_statement, STATE 11814),
    (sym_expression_statement, STATE 11814), (sym_tuple_expression, STATE 12425),
    (sym_named_expression, STATE 7969), (sym__named_expression_lhs, STATE 12752),
    (sym_return_statement, STATE 11814), (sym_delete_statement, STATE 11814),
    (sym_raise_statement, STATE 11814), (sym_pass_statement, STATE 11814),
    (sym_break_statement, STATE 11814), (sym_continue_statement, STATE 11814),
    (sym_extension_definition, STATE 927), (sym_mlir_region, STATE 927),
    (sym_comptime_statement, STATE 927), (sym_if_statement, STATE 927),
    (sym_match_statement, STATE 927), (sym_for_statement, STATE 927),
    (sym_while_statement, STATE 927), (sym_try_statement, STATE 927),
    (sym_with_statement, STATE 927), (sym_function_definition, STATE 927),
    (sym_global_statement, STATE 11814), (sym_nonlocal_statement, STATE 11814),
    (sym_exec_statement, STATE 11814), (sym_type_alias_statement, STATE 11814),
    (sym_parameterized_alias_statement, STATE 11814), (sym_class_definition, STATE 927),
    (sym_trait_definition, STATE 927), (sym_decorated_definition, STATE 927),
    (sym_decorator, STATE 3670), (sym_block, STATE 4833), (sym_pattern, STATE 8086),
    (sym_tuple_pattern, STATE 8101), (sym_list_pattern, STATE 8101),
    (sym_list_splat_pattern, STATE 6819), (sym_as_pattern, STATE 7969),
    (sym_expression, STATE 9883), (sym_primary_expression, STATE 7326),
    (sym_comptime_expression, STATE 7017), (sym_transfer_expression, STATE 7017),
    (sym_not_operator, STATE 7969), (sym_boolean_operator, STATE 7969),
    (sym_binary_operator, STATE 7017), (sym_unary_operator, STATE 7017),
    (sym_comparison_operator, STATE 7969), (sym_lambda, STATE 7969),
    (sym_assignment, STATE 12425), (sym_augmented_assignment, STATE 12425),
    (sym_pattern_list, STATE 8578), (sym_yield, STATE 12425), (sym_attribute, STATE 6836),
    (sym_subscript, STATE 6838), (sym_call, STATE 6845), (sym_mlir_type, STATE 7017),
    (sym_list, STATE 7017), (sym_set, STATE 7017), (sym_tuple, STATE 7017),
    (sym_dictionary, STATE 7017), (sym_struct_literal, STATE 7017),
    (sym_list_comprehension, STATE 7017), (sym_dictionary_comprehension, STATE 7017),
    (sym_set_comprehension, STATE 7017), (sym_generator_expression, STATE 7017),
    (sym_parenthesized_expression, STATE 7017), (sym_conditional_expression, STATE 7969),
    (sym_concatenated_string, STATE 7017), (sym_string, STATE 6751), (sym_await, STATE 7017),
    (aux_sym_module_repeat1, STATE 927), (aux_sym_decorated_definition_repeat1, STATE 3670),
    (sym_identifier, ACTIONS 9), (anon_sym_import, ACTIONS 11), (anon_sym_from, ACTIONS 13),
    (anon_sym_LPAREN, ACTIONS 15), (anon_sym_STAR, ACTIONS 17), (anon_sym_print, ACTIONS 19),
    (anon_sym_comptime, ACTIONS 99), (anon_sym_assert, ACTIONS 23),
    (anon_sym___comptime_assert, ACTIONS 25), (anon_sym_return, ACTIONS 27),
    (anon_sym_del, ACTIONS 29), (anon_sym_raise, ACTIONS 31), (anon_sym_pass, ACTIONS 33),
    (anon_sym_break, ACTIONS 35), (anon_sym_continue, ACTIONS 37),
    (anon_sym___extension, ACTIONS 101), (anon_sym___mlir_region, ACTIONS 103),
    (anon_sym_if, ACTIONS 105), (anon_sym_match, ACTIONS 107), (anon_sym_async, ACTIONS 109),
    (anon_sym_for, ACTIONS 111), (anon_sym_while, ACTIONS 113), (anon_sym_try, ACTIONS 115),
    (anon_sym_with, ACTIONS 117), (anon_sym_def, ACTIONS 119), (anon_sym_fn, ACTIONS 119),
    (anon_sym_LBRACK, ACTIONS 59), (anon_sym_LBRACE, ACTIONS 61), (anon_sym_global, ACTIONS 63),
    (anon_sym_nonlocal, ACTIONS 65), (anon_sym_exec, ACTIONS 67), (anon_sym_type, ACTIONS 69),
    (anon_sym_class, ACTIONS 121), (anon_sym_struct, ACTIONS 121), (anon_sym_mut, ACTIONS 73),
    (anon_sym_out, ACTIONS 73), (anon_sym_trait, ACTIONS 123), (anon_sym_AT, ACTIONS 77),
    (anon_sym_DASH, ACTIONS 79), (anon_sym_PLUS, ACTIONS 79), (anon_sym_ref, ACTIONS 81),
    (anon_sym_var, ACTIONS 81), (anon_sym_not, ACTIONS 83), (anon_sym_TILDE, ACTIONS 79),
    (anon_sym_lambda, ACTIONS 85), (anon_sym_yield, ACTIONS 87), (sym_ellipsis, ACTIONS 89),
    (anon_sym___mlir_type, ACTIONS 91), (sym_integer, ACTIONS 93), (sym_float, ACTIONS 89),
    (anon_sym_await, ACTIONS 95), (sym_true, ACTIONS 93), (sym_false, ACTIONS 93),
    (sym_none, ACTIONS 93), (sym_comment, ACTIONS 3), (sym_line_continuation, ACTIONS 3),
    (sym__dedent, ACTIONS 125), (sym_string_start, ACTIONS 97)]"

definition parse_table_525 :: "(nat \<times> nat) list" where "parse_table_525 = [
    (sym__statement, STATE 927), (sym__simple_statements, STATE 927),
    (sym_import_statement, STATE 11814), (sym_future_import_statement, STATE 11814),
    (sym_import_from_statement, STATE 11814), (sym_print_statement, STATE 11814),
    (sym_assert_statement, STATE 11814), (sym_comptime_assert_statement, STATE 11814),
    (sym_expression_statement, STATE 11814), (sym_tuple_expression, STATE 12425),
    (sym_named_expression, STATE 7969), (sym__named_expression_lhs, STATE 12752),
    (sym_return_statement, STATE 11814), (sym_delete_statement, STATE 11814),
    (sym_raise_statement, STATE 11814), (sym_pass_statement, STATE 11814),
    (sym_break_statement, STATE 11814), (sym_continue_statement, STATE 11814),
    (sym_extension_definition, STATE 927), (sym_mlir_region, STATE 927),
    (sym_comptime_statement, STATE 927), (sym_if_statement, STATE 927),
    (sym_match_statement, STATE 927), (sym_for_statement, STATE 927),
    (sym_while_statement, STATE 927), (sym_try_statement, STATE 927),
    (sym_with_statement, STATE 927), (sym_function_definition, STATE 927),
    (sym_global_statement, STATE 11814), (sym_nonlocal_statement, STATE 11814),
    (sym_exec_statement, STATE 11814), (sym_type_alias_statement, STATE 11814),
    (sym_parameterized_alias_statement, STATE 11814), (sym_class_definition, STATE 927),
    (sym_trait_definition, STATE 927), (sym_decorated_definition, STATE 927),
    (sym_decorator, STATE 3670), (sym_block, STATE 4839), (sym_pattern, STATE 8086),
    (sym_tuple_pattern, STATE 8101), (sym_list_pattern, STATE 8101),
    (sym_list_splat_pattern, STATE 6819), (sym_as_pattern, STATE 7969),
    (sym_expression, STATE 9883), (sym_primary_expression, STATE 7326),
    (sym_comptime_expression, STATE 7017), (sym_transfer_expression, STATE 7017),
    (sym_not_operator, STATE 7969), (sym_boolean_operator, STATE 7969),
    (sym_binary_operator, STATE 7017), (sym_unary_operator, STATE 7017),
    (sym_comparison_operator, STATE 7969), (sym_lambda, STATE 7969),
    (sym_assignment, STATE 12425), (sym_augmented_assignment, STATE 12425),
    (sym_pattern_list, STATE 8578), (sym_yield, STATE 12425), (sym_attribute, STATE 6836),
    (sym_subscript, STATE 6838), (sym_call, STATE 6845), (sym_mlir_type, STATE 7017),
    (sym_list, STATE 7017), (sym_set, STATE 7017), (sym_tuple, STATE 7017),
    (sym_dictionary, STATE 7017), (sym_struct_literal, STATE 7017),
    (sym_list_comprehension, STATE 7017), (sym_dictionary_comprehension, STATE 7017),
    (sym_set_comprehension, STATE 7017), (sym_generator_expression, STATE 7017),
    (sym_parenthesized_expression, STATE 7017), (sym_conditional_expression, STATE 7969),
    (sym_concatenated_string, STATE 7017), (sym_string, STATE 6751), (sym_await, STATE 7017),
    (aux_sym_module_repeat1, STATE 927), (aux_sym_decorated_definition_repeat1, STATE 3670),
    (sym_identifier, ACTIONS 9), (anon_sym_import, ACTIONS 11), (anon_sym_from, ACTIONS 13),
    (anon_sym_LPAREN, ACTIONS 15), (anon_sym_STAR, ACTIONS 17), (anon_sym_print, ACTIONS 19),
    (anon_sym_comptime, ACTIONS 99), (anon_sym_assert, ACTIONS 23),
    (anon_sym___comptime_assert, ACTIONS 25), (anon_sym_return, ACTIONS 27),
    (anon_sym_del, ACTIONS 29), (anon_sym_raise, ACTIONS 31), (anon_sym_pass, ACTIONS 33),
    (anon_sym_break, ACTIONS 35), (anon_sym_continue, ACTIONS 37),
    (anon_sym___extension, ACTIONS 101), (anon_sym___mlir_region, ACTIONS 103),
    (anon_sym_if, ACTIONS 105), (anon_sym_match, ACTIONS 107), (anon_sym_async, ACTIONS 109),
    (anon_sym_for, ACTIONS 111), (anon_sym_while, ACTIONS 113), (anon_sym_try, ACTIONS 115),
    (anon_sym_with, ACTIONS 117), (anon_sym_def, ACTIONS 119), (anon_sym_fn, ACTIONS 119),
    (anon_sym_LBRACK, ACTIONS 59), (anon_sym_LBRACE, ACTIONS 61), (anon_sym_global, ACTIONS 63),
    (anon_sym_nonlocal, ACTIONS 65), (anon_sym_exec, ACTIONS 67), (anon_sym_type, ACTIONS 69),
    (anon_sym_class, ACTIONS 121), (anon_sym_struct, ACTIONS 121), (anon_sym_mut, ACTIONS 73),
    (anon_sym_out, ACTIONS 73), (anon_sym_trait, ACTIONS 123), (anon_sym_AT, ACTIONS 77),
    (anon_sym_DASH, ACTIONS 79), (anon_sym_PLUS, ACTIONS 79), (anon_sym_ref, ACTIONS 81),
    (anon_sym_var, ACTIONS 81), (anon_sym_not, ACTIONS 83), (anon_sym_TILDE, ACTIONS 79),
    (anon_sym_lambda, ACTIONS 85), (anon_sym_yield, ACTIONS 87), (sym_ellipsis, ACTIONS 89),
    (anon_sym___mlir_type, ACTIONS 91), (sym_integer, ACTIONS 93), (sym_float, ACTIONS 89),
    (anon_sym_await, ACTIONS 95), (sym_true, ACTIONS 93), (sym_false, ACTIONS 93),
    (sym_none, ACTIONS 93), (sym_comment, ACTIONS 3), (sym_line_continuation, ACTIONS 3),
    (sym__dedent, ACTIONS 125), (sym_string_start, ACTIONS 97)]"

definition parse_table_526 :: "(nat \<times> nat) list" where "parse_table_526 = [
    (sym__statement, STATE 927), (sym__simple_statements, STATE 927),
    (sym_import_statement, STATE 11814), (sym_future_import_statement, STATE 11814),
    (sym_import_from_statement, STATE 11814), (sym_print_statement, STATE 11814),
    (sym_assert_statement, STATE 11814), (sym_comptime_assert_statement, STATE 11814),
    (sym_expression_statement, STATE 11814), (sym_tuple_expression, STATE 12425),
    (sym_named_expression, STATE 7969), (sym__named_expression_lhs, STATE 12752),
    (sym_return_statement, STATE 11814), (sym_delete_statement, STATE 11814),
    (sym_raise_statement, STATE 11814), (sym_pass_statement, STATE 11814),
    (sym_break_statement, STATE 11814), (sym_continue_statement, STATE 11814),
    (sym_extension_definition, STATE 927), (sym_mlir_region, STATE 927),
    (sym_comptime_statement, STATE 927), (sym_if_statement, STATE 927),
    (sym_match_statement, STATE 927), (sym_for_statement, STATE 927),
    (sym_while_statement, STATE 927), (sym_try_statement, STATE 927),
    (sym_with_statement, STATE 927), (sym_function_definition, STATE 927),
    (sym_global_statement, STATE 11814), (sym_nonlocal_statement, STATE 11814),
    (sym_exec_statement, STATE 11814), (sym_type_alias_statement, STATE 11814),
    (sym_parameterized_alias_statement, STATE 11814), (sym_class_definition, STATE 927),
    (sym_trait_definition, STATE 927), (sym_decorated_definition, STATE 927),
    (sym_decorator, STATE 3670), (sym_block, STATE 4846), (sym_pattern, STATE 8086),
    (sym_tuple_pattern, STATE 8101), (sym_list_pattern, STATE 8101),
    (sym_list_splat_pattern, STATE 6819), (sym_as_pattern, STATE 7969),
    (sym_expression, STATE 9883), (sym_primary_expression, STATE 7326),
    (sym_comptime_expression, STATE 7017), (sym_transfer_expression, STATE 7017),
    (sym_not_operator, STATE 7969), (sym_boolean_operator, STATE 7969),
    (sym_binary_operator, STATE 7017), (sym_unary_operator, STATE 7017),
    (sym_comparison_operator, STATE 7969), (sym_lambda, STATE 7969),
    (sym_assignment, STATE 12425), (sym_augmented_assignment, STATE 12425),
    (sym_pattern_list, STATE 8578), (sym_yield, STATE 12425), (sym_attribute, STATE 6836),
    (sym_subscript, STATE 6838), (sym_call, STATE 6845), (sym_mlir_type, STATE 7017),
    (sym_list, STATE 7017), (sym_set, STATE 7017), (sym_tuple, STATE 7017),
    (sym_dictionary, STATE 7017), (sym_struct_literal, STATE 7017),
    (sym_list_comprehension, STATE 7017), (sym_dictionary_comprehension, STATE 7017),
    (sym_set_comprehension, STATE 7017), (sym_generator_expression, STATE 7017),
    (sym_parenthesized_expression, STATE 7017), (sym_conditional_expression, STATE 7969),
    (sym_concatenated_string, STATE 7017), (sym_string, STATE 6751), (sym_await, STATE 7017),
    (aux_sym_module_repeat1, STATE 927), (aux_sym_decorated_definition_repeat1, STATE 3670),
    (sym_identifier, ACTIONS 9), (anon_sym_import, ACTIONS 11), (anon_sym_from, ACTIONS 13),
    (anon_sym_LPAREN, ACTIONS 15), (anon_sym_STAR, ACTIONS 17), (anon_sym_print, ACTIONS 19),
    (anon_sym_comptime, ACTIONS 99), (anon_sym_assert, ACTIONS 23),
    (anon_sym___comptime_assert, ACTIONS 25), (anon_sym_return, ACTIONS 27),
    (anon_sym_del, ACTIONS 29), (anon_sym_raise, ACTIONS 31), (anon_sym_pass, ACTIONS 33),
    (anon_sym_break, ACTIONS 35), (anon_sym_continue, ACTIONS 37),
    (anon_sym___extension, ACTIONS 101), (anon_sym___mlir_region, ACTIONS 103),
    (anon_sym_if, ACTIONS 105), (anon_sym_match, ACTIONS 107), (anon_sym_async, ACTIONS 109),
    (anon_sym_for, ACTIONS 111), (anon_sym_while, ACTIONS 113), (anon_sym_try, ACTIONS 115),
    (anon_sym_with, ACTIONS 117), (anon_sym_def, ACTIONS 119), (anon_sym_fn, ACTIONS 119),
    (anon_sym_LBRACK, ACTIONS 59), (anon_sym_LBRACE, ACTIONS 61), (anon_sym_global, ACTIONS 63),
    (anon_sym_nonlocal, ACTIONS 65), (anon_sym_exec, ACTIONS 67), (anon_sym_type, ACTIONS 69),
    (anon_sym_class, ACTIONS 121), (anon_sym_struct, ACTIONS 121), (anon_sym_mut, ACTIONS 73),
    (anon_sym_out, ACTIONS 73), (anon_sym_trait, ACTIONS 123), (anon_sym_AT, ACTIONS 77),
    (anon_sym_DASH, ACTIONS 79), (anon_sym_PLUS, ACTIONS 79), (anon_sym_ref, ACTIONS 81),
    (anon_sym_var, ACTIONS 81), (anon_sym_not, ACTIONS 83), (anon_sym_TILDE, ACTIONS 79),
    (anon_sym_lambda, ACTIONS 85), (anon_sym_yield, ACTIONS 87), (sym_ellipsis, ACTIONS 89),
    (anon_sym___mlir_type, ACTIONS 91), (sym_integer, ACTIONS 93), (sym_float, ACTIONS 89),
    (anon_sym_await, ACTIONS 95), (sym_true, ACTIONS 93), (sym_false, ACTIONS 93),
    (sym_none, ACTIONS 93), (sym_comment, ACTIONS 3), (sym_line_continuation, ACTIONS 3),
    (sym__dedent, ACTIONS 125), (sym_string_start, ACTIONS 97)]"

definition parse_table_527 :: "(nat \<times> nat) list" where "parse_table_527 = [
    (sym__statement, STATE 927), (sym__simple_statements, STATE 927),
    (sym_import_statement, STATE 11814), (sym_future_import_statement, STATE 11814),
    (sym_import_from_statement, STATE 11814), (sym_print_statement, STATE 11814),
    (sym_assert_statement, STATE 11814), (sym_comptime_assert_statement, STATE 11814),
    (sym_expression_statement, STATE 11814), (sym_tuple_expression, STATE 12425),
    (sym_named_expression, STATE 7969), (sym__named_expression_lhs, STATE 12752),
    (sym_return_statement, STATE 11814), (sym_delete_statement, STATE 11814),
    (sym_raise_statement, STATE 11814), (sym_pass_statement, STATE 11814),
    (sym_break_statement, STATE 11814), (sym_continue_statement, STATE 11814),
    (sym_extension_definition, STATE 927), (sym_mlir_region, STATE 927),
    (sym_comptime_statement, STATE 927), (sym_if_statement, STATE 927),
    (sym_match_statement, STATE 927), (sym_for_statement, STATE 927),
    (sym_while_statement, STATE 927), (sym_try_statement, STATE 927),
    (sym_with_statement, STATE 927), (sym_function_definition, STATE 927),
    (sym_global_statement, STATE 11814), (sym_nonlocal_statement, STATE 11814),
    (sym_exec_statement, STATE 11814), (sym_type_alias_statement, STATE 11814),
    (sym_parameterized_alias_statement, STATE 11814), (sym_class_definition, STATE 927),
    (sym_trait_definition, STATE 927), (sym_decorated_definition, STATE 927),
    (sym_decorator, STATE 3670), (sym_block, STATE 4849), (sym_pattern, STATE 8086),
    (sym_tuple_pattern, STATE 8101), (sym_list_pattern, STATE 8101),
    (sym_list_splat_pattern, STATE 6819), (sym_as_pattern, STATE 7969),
    (sym_expression, STATE 9883), (sym_primary_expression, STATE 7326),
    (sym_comptime_expression, STATE 7017), (sym_transfer_expression, STATE 7017),
    (sym_not_operator, STATE 7969), (sym_boolean_operator, STATE 7969),
    (sym_binary_operator, STATE 7017), (sym_unary_operator, STATE 7017),
    (sym_comparison_operator, STATE 7969), (sym_lambda, STATE 7969),
    (sym_assignment, STATE 12425), (sym_augmented_assignment, STATE 12425),
    (sym_pattern_list, STATE 8578), (sym_yield, STATE 12425), (sym_attribute, STATE 6836),
    (sym_subscript, STATE 6838), (sym_call, STATE 6845), (sym_mlir_type, STATE 7017),
    (sym_list, STATE 7017), (sym_set, STATE 7017), (sym_tuple, STATE 7017),
    (sym_dictionary, STATE 7017), (sym_struct_literal, STATE 7017),
    (sym_list_comprehension, STATE 7017), (sym_dictionary_comprehension, STATE 7017),
    (sym_set_comprehension, STATE 7017), (sym_generator_expression, STATE 7017),
    (sym_parenthesized_expression, STATE 7017), (sym_conditional_expression, STATE 7969),
    (sym_concatenated_string, STATE 7017), (sym_string, STATE 6751), (sym_await, STATE 7017),
    (aux_sym_module_repeat1, STATE 927), (aux_sym_decorated_definition_repeat1, STATE 3670),
    (sym_identifier, ACTIONS 9), (anon_sym_import, ACTIONS 11), (anon_sym_from, ACTIONS 13),
    (anon_sym_LPAREN, ACTIONS 15), (anon_sym_STAR, ACTIONS 17), (anon_sym_print, ACTIONS 19),
    (anon_sym_comptime, ACTIONS 99), (anon_sym_assert, ACTIONS 23),
    (anon_sym___comptime_assert, ACTIONS 25), (anon_sym_return, ACTIONS 27),
    (anon_sym_del, ACTIONS 29), (anon_sym_raise, ACTIONS 31), (anon_sym_pass, ACTIONS 33),
    (anon_sym_break, ACTIONS 35), (anon_sym_continue, ACTIONS 37),
    (anon_sym___extension, ACTIONS 101), (anon_sym___mlir_region, ACTIONS 103),
    (anon_sym_if, ACTIONS 105), (anon_sym_match, ACTIONS 107), (anon_sym_async, ACTIONS 109),
    (anon_sym_for, ACTIONS 111), (anon_sym_while, ACTIONS 113), (anon_sym_try, ACTIONS 115),
    (anon_sym_with, ACTIONS 117), (anon_sym_def, ACTIONS 119), (anon_sym_fn, ACTIONS 119),
    (anon_sym_LBRACK, ACTIONS 59), (anon_sym_LBRACE, ACTIONS 61), (anon_sym_global, ACTIONS 63),
    (anon_sym_nonlocal, ACTIONS 65), (anon_sym_exec, ACTIONS 67), (anon_sym_type, ACTIONS 69),
    (anon_sym_class, ACTIONS 121), (anon_sym_struct, ACTIONS 121), (anon_sym_mut, ACTIONS 73),
    (anon_sym_out, ACTIONS 73), (anon_sym_trait, ACTIONS 123), (anon_sym_AT, ACTIONS 77),
    (anon_sym_DASH, ACTIONS 79), (anon_sym_PLUS, ACTIONS 79), (anon_sym_ref, ACTIONS 81),
    (anon_sym_var, ACTIONS 81), (anon_sym_not, ACTIONS 83), (anon_sym_TILDE, ACTIONS 79),
    (anon_sym_lambda, ACTIONS 85), (anon_sym_yield, ACTIONS 87), (sym_ellipsis, ACTIONS 89),
    (anon_sym___mlir_type, ACTIONS 91), (sym_integer, ACTIONS 93), (sym_float, ACTIONS 89),
    (anon_sym_await, ACTIONS 95), (sym_true, ACTIONS 93), (sym_false, ACTIONS 93),
    (sym_none, ACTIONS 93), (sym_comment, ACTIONS 3), (sym_line_continuation, ACTIONS 3),
    (sym__dedent, ACTIONS 125), (sym_string_start, ACTIONS 97)]"

definition parse_table_528 :: "(nat \<times> nat) list" where "parse_table_528 = [
    (sym__statement, STATE 927), (sym__simple_statements, STATE 927),
    (sym_import_statement, STATE 11814), (sym_future_import_statement, STATE 11814),
    (sym_import_from_statement, STATE 11814), (sym_print_statement, STATE 11814),
    (sym_assert_statement, STATE 11814), (sym_comptime_assert_statement, STATE 11814),
    (sym_expression_statement, STATE 11814), (sym_tuple_expression, STATE 12425),
    (sym_named_expression, STATE 7969), (sym__named_expression_lhs, STATE 12752),
    (sym_return_statement, STATE 11814), (sym_delete_statement, STATE 11814),
    (sym_raise_statement, STATE 11814), (sym_pass_statement, STATE 11814),
    (sym_break_statement, STATE 11814), (sym_continue_statement, STATE 11814),
    (sym_extension_definition, STATE 927), (sym_mlir_region, STATE 927),
    (sym_comptime_statement, STATE 927), (sym_if_statement, STATE 927),
    (sym_match_statement, STATE 927), (sym_for_statement, STATE 927),
    (sym_while_statement, STATE 927), (sym_try_statement, STATE 927),
    (sym_with_statement, STATE 927), (sym_function_definition, STATE 927),
    (sym_global_statement, STATE 11814), (sym_nonlocal_statement, STATE 11814),
    (sym_exec_statement, STATE 11814), (sym_type_alias_statement, STATE 11814),
    (sym_parameterized_alias_statement, STATE 11814), (sym_class_definition, STATE 927),
    (sym_trait_definition, STATE 927), (sym_decorated_definition, STATE 927),
    (sym_decorator, STATE 3670), (sym_block, STATE 4854), (sym_pattern, STATE 8086),
    (sym_tuple_pattern, STATE 8101), (sym_list_pattern, STATE 8101),
    (sym_list_splat_pattern, STATE 6819), (sym_as_pattern, STATE 7969),
    (sym_expression, STATE 9883), (sym_primary_expression, STATE 7326),
    (sym_comptime_expression, STATE 7017), (sym_transfer_expression, STATE 7017),
    (sym_not_operator, STATE 7969), (sym_boolean_operator, STATE 7969),
    (sym_binary_operator, STATE 7017), (sym_unary_operator, STATE 7017),
    (sym_comparison_operator, STATE 7969), (sym_lambda, STATE 7969),
    (sym_assignment, STATE 12425), (sym_augmented_assignment, STATE 12425),
    (sym_pattern_list, STATE 8578), (sym_yield, STATE 12425), (sym_attribute, STATE 6836),
    (sym_subscript, STATE 6838), (sym_call, STATE 6845), (sym_mlir_type, STATE 7017),
    (sym_list, STATE 7017), (sym_set, STATE 7017), (sym_tuple, STATE 7017),
    (sym_dictionary, STATE 7017), (sym_struct_literal, STATE 7017),
    (sym_list_comprehension, STATE 7017), (sym_dictionary_comprehension, STATE 7017),
    (sym_set_comprehension, STATE 7017), (sym_generator_expression, STATE 7017),
    (sym_parenthesized_expression, STATE 7017), (sym_conditional_expression, STATE 7969),
    (sym_concatenated_string, STATE 7017), (sym_string, STATE 6751), (sym_await, STATE 7017),
    (aux_sym_module_repeat1, STATE 927), (aux_sym_decorated_definition_repeat1, STATE 3670),
    (sym_identifier, ACTIONS 9), (anon_sym_import, ACTIONS 11), (anon_sym_from, ACTIONS 13),
    (anon_sym_LPAREN, ACTIONS 15), (anon_sym_STAR, ACTIONS 17), (anon_sym_print, ACTIONS 19),
    (anon_sym_comptime, ACTIONS 99), (anon_sym_assert, ACTIONS 23),
    (anon_sym___comptime_assert, ACTIONS 25), (anon_sym_return, ACTIONS 27),
    (anon_sym_del, ACTIONS 29), (anon_sym_raise, ACTIONS 31), (anon_sym_pass, ACTIONS 33),
    (anon_sym_break, ACTIONS 35), (anon_sym_continue, ACTIONS 37),
    (anon_sym___extension, ACTIONS 101), (anon_sym___mlir_region, ACTIONS 103),
    (anon_sym_if, ACTIONS 105), (anon_sym_match, ACTIONS 107), (anon_sym_async, ACTIONS 109),
    (anon_sym_for, ACTIONS 111), (anon_sym_while, ACTIONS 113), (anon_sym_try, ACTIONS 115),
    (anon_sym_with, ACTIONS 117), (anon_sym_def, ACTIONS 119), (anon_sym_fn, ACTIONS 119),
    (anon_sym_LBRACK, ACTIONS 59), (anon_sym_LBRACE, ACTIONS 61), (anon_sym_global, ACTIONS 63),
    (anon_sym_nonlocal, ACTIONS 65), (anon_sym_exec, ACTIONS 67), (anon_sym_type, ACTIONS 69),
    (anon_sym_class, ACTIONS 121), (anon_sym_struct, ACTIONS 121), (anon_sym_mut, ACTIONS 73),
    (anon_sym_out, ACTIONS 73), (anon_sym_trait, ACTIONS 123), (anon_sym_AT, ACTIONS 77),
    (anon_sym_DASH, ACTIONS 79), (anon_sym_PLUS, ACTIONS 79), (anon_sym_ref, ACTIONS 81),
    (anon_sym_var, ACTIONS 81), (anon_sym_not, ACTIONS 83), (anon_sym_TILDE, ACTIONS 79),
    (anon_sym_lambda, ACTIONS 85), (anon_sym_yield, ACTIONS 87), (sym_ellipsis, ACTIONS 89),
    (anon_sym___mlir_type, ACTIONS 91), (sym_integer, ACTIONS 93), (sym_float, ACTIONS 89),
    (anon_sym_await, ACTIONS 95), (sym_true, ACTIONS 93), (sym_false, ACTIONS 93),
    (sym_none, ACTIONS 93), (sym_comment, ACTIONS 3), (sym_line_continuation, ACTIONS 3),
    (sym__dedent, ACTIONS 125), (sym_string_start, ACTIONS 97)]"

definition parse_table_529 :: "(nat \<times> nat) list" where "parse_table_529 = [
    (sym__statement, STATE 927), (sym__simple_statements, STATE 927),
    (sym_import_statement, STATE 11814), (sym_future_import_statement, STATE 11814),
    (sym_import_from_statement, STATE 11814), (sym_print_statement, STATE 11814),
    (sym_assert_statement, STATE 11814), (sym_comptime_assert_statement, STATE 11814),
    (sym_expression_statement, STATE 11814), (sym_tuple_expression, STATE 12425),
    (sym_named_expression, STATE 7969), (sym__named_expression_lhs, STATE 12752),
    (sym_return_statement, STATE 11814), (sym_delete_statement, STATE 11814),
    (sym_raise_statement, STATE 11814), (sym_pass_statement, STATE 11814),
    (sym_break_statement, STATE 11814), (sym_continue_statement, STATE 11814),
    (sym_extension_definition, STATE 927), (sym_mlir_region, STATE 927),
    (sym_comptime_statement, STATE 927), (sym_if_statement, STATE 927),
    (sym_match_statement, STATE 927), (sym_for_statement, STATE 927),
    (sym_while_statement, STATE 927), (sym_try_statement, STATE 927),
    (sym_with_statement, STATE 927), (sym_function_definition, STATE 927),
    (sym_global_statement, STATE 11814), (sym_nonlocal_statement, STATE 11814),
    (sym_exec_statement, STATE 11814), (sym_type_alias_statement, STATE 11814),
    (sym_parameterized_alias_statement, STATE 11814), (sym_class_definition, STATE 927),
    (sym_trait_definition, STATE 927), (sym_decorated_definition, STATE 927),
    (sym_decorator, STATE 3670), (sym_block, STATE 4858), (sym_pattern, STATE 8086),
    (sym_tuple_pattern, STATE 8101), (sym_list_pattern, STATE 8101),
    (sym_list_splat_pattern, STATE 6819), (sym_as_pattern, STATE 7969),
    (sym_expression, STATE 9883), (sym_primary_expression, STATE 7326),
    (sym_comptime_expression, STATE 7017), (sym_transfer_expression, STATE 7017),
    (sym_not_operator, STATE 7969), (sym_boolean_operator, STATE 7969),
    (sym_binary_operator, STATE 7017), (sym_unary_operator, STATE 7017),
    (sym_comparison_operator, STATE 7969), (sym_lambda, STATE 7969),
    (sym_assignment, STATE 12425), (sym_augmented_assignment, STATE 12425),
    (sym_pattern_list, STATE 8578), (sym_yield, STATE 12425), (sym_attribute, STATE 6836),
    (sym_subscript, STATE 6838), (sym_call, STATE 6845), (sym_mlir_type, STATE 7017),
    (sym_list, STATE 7017), (sym_set, STATE 7017), (sym_tuple, STATE 7017),
    (sym_dictionary, STATE 7017), (sym_struct_literal, STATE 7017),
    (sym_list_comprehension, STATE 7017), (sym_dictionary_comprehension, STATE 7017),
    (sym_set_comprehension, STATE 7017), (sym_generator_expression, STATE 7017),
    (sym_parenthesized_expression, STATE 7017), (sym_conditional_expression, STATE 7969),
    (sym_concatenated_string, STATE 7017), (sym_string, STATE 6751), (sym_await, STATE 7017),
    (aux_sym_module_repeat1, STATE 927), (aux_sym_decorated_definition_repeat1, STATE 3670),
    (sym_identifier, ACTIONS 9), (anon_sym_import, ACTIONS 11), (anon_sym_from, ACTIONS 13),
    (anon_sym_LPAREN, ACTIONS 15), (anon_sym_STAR, ACTIONS 17), (anon_sym_print, ACTIONS 19),
    (anon_sym_comptime, ACTIONS 99), (anon_sym_assert, ACTIONS 23),
    (anon_sym___comptime_assert, ACTIONS 25), (anon_sym_return, ACTIONS 27),
    (anon_sym_del, ACTIONS 29), (anon_sym_raise, ACTIONS 31), (anon_sym_pass, ACTIONS 33),
    (anon_sym_break, ACTIONS 35), (anon_sym_continue, ACTIONS 37),
    (anon_sym___extension, ACTIONS 101), (anon_sym___mlir_region, ACTIONS 103),
    (anon_sym_if, ACTIONS 105), (anon_sym_match, ACTIONS 107), (anon_sym_async, ACTIONS 109),
    (anon_sym_for, ACTIONS 111), (anon_sym_while, ACTIONS 113), (anon_sym_try, ACTIONS 115),
    (anon_sym_with, ACTIONS 117), (anon_sym_def, ACTIONS 119), (anon_sym_fn, ACTIONS 119),
    (anon_sym_LBRACK, ACTIONS 59), (anon_sym_LBRACE, ACTIONS 61), (anon_sym_global, ACTIONS 63),
    (anon_sym_nonlocal, ACTIONS 65), (anon_sym_exec, ACTIONS 67), (anon_sym_type, ACTIONS 69),
    (anon_sym_class, ACTIONS 121), (anon_sym_struct, ACTIONS 121), (anon_sym_mut, ACTIONS 73),
    (anon_sym_out, ACTIONS 73), (anon_sym_trait, ACTIONS 123), (anon_sym_AT, ACTIONS 77),
    (anon_sym_DASH, ACTIONS 79), (anon_sym_PLUS, ACTIONS 79), (anon_sym_ref, ACTIONS 81),
    (anon_sym_var, ACTIONS 81), (anon_sym_not, ACTIONS 83), (anon_sym_TILDE, ACTIONS 79),
    (anon_sym_lambda, ACTIONS 85), (anon_sym_yield, ACTIONS 87), (sym_ellipsis, ACTIONS 89),
    (anon_sym___mlir_type, ACTIONS 91), (sym_integer, ACTIONS 93), (sym_float, ACTIONS 89),
    (anon_sym_await, ACTIONS 95), (sym_true, ACTIONS 93), (sym_false, ACTIONS 93),
    (sym_none, ACTIONS 93), (sym_comment, ACTIONS 3), (sym_line_continuation, ACTIONS 3),
    (sym__dedent, ACTIONS 125), (sym_string_start, ACTIONS 97)]"

definition parse_table_530 :: "(nat \<times> nat) list" where "parse_table_530 = [
    (sym__statement, STATE 927), (sym__simple_statements, STATE 927),
    (sym_import_statement, STATE 11814), (sym_future_import_statement, STATE 11814),
    (sym_import_from_statement, STATE 11814), (sym_print_statement, STATE 11814),
    (sym_assert_statement, STATE 11814), (sym_comptime_assert_statement, STATE 11814),
    (sym_expression_statement, STATE 11814), (sym_tuple_expression, STATE 12425),
    (sym_named_expression, STATE 7969), (sym__named_expression_lhs, STATE 12752),
    (sym_return_statement, STATE 11814), (sym_delete_statement, STATE 11814),
    (sym_raise_statement, STATE 11814), (sym_pass_statement, STATE 11814),
    (sym_break_statement, STATE 11814), (sym_continue_statement, STATE 11814),
    (sym_extension_definition, STATE 927), (sym_mlir_region, STATE 927),
    (sym_comptime_statement, STATE 927), (sym_if_statement, STATE 927),
    (sym_match_statement, STATE 927), (sym_for_statement, STATE 927),
    (sym_while_statement, STATE 927), (sym_try_statement, STATE 927),
    (sym_with_statement, STATE 927), (sym_function_definition, STATE 927),
    (sym_global_statement, STATE 11814), (sym_nonlocal_statement, STATE 11814),
    (sym_exec_statement, STATE 11814), (sym_type_alias_statement, STATE 11814),
    (sym_parameterized_alias_statement, STATE 11814), (sym_class_definition, STATE 927),
    (sym_trait_definition, STATE 927), (sym_decorated_definition, STATE 927),
    (sym_decorator, STATE 3670), (sym_block, STATE 4864), (sym_pattern, STATE 8086),
    (sym_tuple_pattern, STATE 8101), (sym_list_pattern, STATE 8101),
    (sym_list_splat_pattern, STATE 6819), (sym_as_pattern, STATE 7969),
    (sym_expression, STATE 9883), (sym_primary_expression, STATE 7326),
    (sym_comptime_expression, STATE 7017), (sym_transfer_expression, STATE 7017),
    (sym_not_operator, STATE 7969), (sym_boolean_operator, STATE 7969),
    (sym_binary_operator, STATE 7017), (sym_unary_operator, STATE 7017),
    (sym_comparison_operator, STATE 7969), (sym_lambda, STATE 7969),
    (sym_assignment, STATE 12425), (sym_augmented_assignment, STATE 12425),
    (sym_pattern_list, STATE 8578), (sym_yield, STATE 12425), (sym_attribute, STATE 6836),
    (sym_subscript, STATE 6838), (sym_call, STATE 6845), (sym_mlir_type, STATE 7017),
    (sym_list, STATE 7017), (sym_set, STATE 7017), (sym_tuple, STATE 7017),
    (sym_dictionary, STATE 7017), (sym_struct_literal, STATE 7017),
    (sym_list_comprehension, STATE 7017), (sym_dictionary_comprehension, STATE 7017),
    (sym_set_comprehension, STATE 7017), (sym_generator_expression, STATE 7017),
    (sym_parenthesized_expression, STATE 7017), (sym_conditional_expression, STATE 7969),
    (sym_concatenated_string, STATE 7017), (sym_string, STATE 6751), (sym_await, STATE 7017),
    (aux_sym_module_repeat1, STATE 927), (aux_sym_decorated_definition_repeat1, STATE 3670),
    (sym_identifier, ACTIONS 9), (anon_sym_import, ACTIONS 11), (anon_sym_from, ACTIONS 13),
    (anon_sym_LPAREN, ACTIONS 15), (anon_sym_STAR, ACTIONS 17), (anon_sym_print, ACTIONS 19),
    (anon_sym_comptime, ACTIONS 99), (anon_sym_assert, ACTIONS 23),
    (anon_sym___comptime_assert, ACTIONS 25), (anon_sym_return, ACTIONS 27),
    (anon_sym_del, ACTIONS 29), (anon_sym_raise, ACTIONS 31), (anon_sym_pass, ACTIONS 33),
    (anon_sym_break, ACTIONS 35), (anon_sym_continue, ACTIONS 37),
    (anon_sym___extension, ACTIONS 101), (anon_sym___mlir_region, ACTIONS 103),
    (anon_sym_if, ACTIONS 105), (anon_sym_match, ACTIONS 107), (anon_sym_async, ACTIONS 109),
    (anon_sym_for, ACTIONS 111), (anon_sym_while, ACTIONS 113), (anon_sym_try, ACTIONS 115),
    (anon_sym_with, ACTIONS 117), (anon_sym_def, ACTIONS 119), (anon_sym_fn, ACTIONS 119),
    (anon_sym_LBRACK, ACTIONS 59), (anon_sym_LBRACE, ACTIONS 61), (anon_sym_global, ACTIONS 63),
    (anon_sym_nonlocal, ACTIONS 65), (anon_sym_exec, ACTIONS 67), (anon_sym_type, ACTIONS 69),
    (anon_sym_class, ACTIONS 121), (anon_sym_struct, ACTIONS 121), (anon_sym_mut, ACTIONS 73),
    (anon_sym_out, ACTIONS 73), (anon_sym_trait, ACTIONS 123), (anon_sym_AT, ACTIONS 77),
    (anon_sym_DASH, ACTIONS 79), (anon_sym_PLUS, ACTIONS 79), (anon_sym_ref, ACTIONS 81),
    (anon_sym_var, ACTIONS 81), (anon_sym_not, ACTIONS 83), (anon_sym_TILDE, ACTIONS 79),
    (anon_sym_lambda, ACTIONS 85), (anon_sym_yield, ACTIONS 87), (sym_ellipsis, ACTIONS 89),
    (anon_sym___mlir_type, ACTIONS 91), (sym_integer, ACTIONS 93), (sym_float, ACTIONS 89),
    (anon_sym_await, ACTIONS 95), (sym_true, ACTIONS 93), (sym_false, ACTIONS 93),
    (sym_none, ACTIONS 93), (sym_comment, ACTIONS 3), (sym_line_continuation, ACTIONS 3),
    (sym__dedent, ACTIONS 125), (sym_string_start, ACTIONS 97)]"

definition parse_table_531 :: "(nat \<times> nat) list" where "parse_table_531 = [
    (sym__statement, STATE 927), (sym__simple_statements, STATE 927),
    (sym_import_statement, STATE 11814), (sym_future_import_statement, STATE 11814),
    (sym_import_from_statement, STATE 11814), (sym_print_statement, STATE 11814),
    (sym_assert_statement, STATE 11814), (sym_comptime_assert_statement, STATE 11814),
    (sym_expression_statement, STATE 11814), (sym_tuple_expression, STATE 12425),
    (sym_named_expression, STATE 7969), (sym__named_expression_lhs, STATE 12752),
    (sym_return_statement, STATE 11814), (sym_delete_statement, STATE 11814),
    (sym_raise_statement, STATE 11814), (sym_pass_statement, STATE 11814),
    (sym_break_statement, STATE 11814), (sym_continue_statement, STATE 11814),
    (sym_extension_definition, STATE 927), (sym_mlir_region, STATE 927),
    (sym_comptime_statement, STATE 927), (sym_if_statement, STATE 927),
    (sym_match_statement, STATE 927), (sym_for_statement, STATE 927),
    (sym_while_statement, STATE 927), (sym_try_statement, STATE 927),
    (sym_with_statement, STATE 927), (sym_function_definition, STATE 927),
    (sym_global_statement, STATE 11814), (sym_nonlocal_statement, STATE 11814),
    (sym_exec_statement, STATE 11814), (sym_type_alias_statement, STATE 11814),
    (sym_parameterized_alias_statement, STATE 11814), (sym_class_definition, STATE 927),
    (sym_trait_definition, STATE 927), (sym_decorated_definition, STATE 927),
    (sym_decorator, STATE 3670), (sym_block, STATE 4879), (sym_pattern, STATE 8086),
    (sym_tuple_pattern, STATE 8101), (sym_list_pattern, STATE 8101),
    (sym_list_splat_pattern, STATE 6819), (sym_as_pattern, STATE 7969),
    (sym_expression, STATE 9883), (sym_primary_expression, STATE 7326),
    (sym_comptime_expression, STATE 7017), (sym_transfer_expression, STATE 7017),
    (sym_not_operator, STATE 7969), (sym_boolean_operator, STATE 7969),
    (sym_binary_operator, STATE 7017), (sym_unary_operator, STATE 7017),
    (sym_comparison_operator, STATE 7969), (sym_lambda, STATE 7969),
    (sym_assignment, STATE 12425), (sym_augmented_assignment, STATE 12425),
    (sym_pattern_list, STATE 8578), (sym_yield, STATE 12425), (sym_attribute, STATE 6836),
    (sym_subscript, STATE 6838), (sym_call, STATE 6845), (sym_mlir_type, STATE 7017),
    (sym_list, STATE 7017), (sym_set, STATE 7017), (sym_tuple, STATE 7017),
    (sym_dictionary, STATE 7017), (sym_struct_literal, STATE 7017),
    (sym_list_comprehension, STATE 7017), (sym_dictionary_comprehension, STATE 7017),
    (sym_set_comprehension, STATE 7017), (sym_generator_expression, STATE 7017),
    (sym_parenthesized_expression, STATE 7017), (sym_conditional_expression, STATE 7969),
    (sym_concatenated_string, STATE 7017), (sym_string, STATE 6751), (sym_await, STATE 7017),
    (aux_sym_module_repeat1, STATE 927), (aux_sym_decorated_definition_repeat1, STATE 3670),
    (sym_identifier, ACTIONS 9), (anon_sym_import, ACTIONS 11), (anon_sym_from, ACTIONS 13),
    (anon_sym_LPAREN, ACTIONS 15), (anon_sym_STAR, ACTIONS 17), (anon_sym_print, ACTIONS 19),
    (anon_sym_comptime, ACTIONS 99), (anon_sym_assert, ACTIONS 23),
    (anon_sym___comptime_assert, ACTIONS 25), (anon_sym_return, ACTIONS 27),
    (anon_sym_del, ACTIONS 29), (anon_sym_raise, ACTIONS 31), (anon_sym_pass, ACTIONS 33),
    (anon_sym_break, ACTIONS 35), (anon_sym_continue, ACTIONS 37),
    (anon_sym___extension, ACTIONS 101), (anon_sym___mlir_region, ACTIONS 103),
    (anon_sym_if, ACTIONS 105), (anon_sym_match, ACTIONS 107), (anon_sym_async, ACTIONS 109),
    (anon_sym_for, ACTIONS 111), (anon_sym_while, ACTIONS 113), (anon_sym_try, ACTIONS 115),
    (anon_sym_with, ACTIONS 117), (anon_sym_def, ACTIONS 119), (anon_sym_fn, ACTIONS 119),
    (anon_sym_LBRACK, ACTIONS 59), (anon_sym_LBRACE, ACTIONS 61), (anon_sym_global, ACTIONS 63),
    (anon_sym_nonlocal, ACTIONS 65), (anon_sym_exec, ACTIONS 67), (anon_sym_type, ACTIONS 69),
    (anon_sym_class, ACTIONS 121), (anon_sym_struct, ACTIONS 121), (anon_sym_mut, ACTIONS 73),
    (anon_sym_out, ACTIONS 73), (anon_sym_trait, ACTIONS 123), (anon_sym_AT, ACTIONS 77),
    (anon_sym_DASH, ACTIONS 79), (anon_sym_PLUS, ACTIONS 79), (anon_sym_ref, ACTIONS 81),
    (anon_sym_var, ACTIONS 81), (anon_sym_not, ACTIONS 83), (anon_sym_TILDE, ACTIONS 79),
    (anon_sym_lambda, ACTIONS 85), (anon_sym_yield, ACTIONS 87), (sym_ellipsis, ACTIONS 89),
    (anon_sym___mlir_type, ACTIONS 91), (sym_integer, ACTIONS 93), (sym_float, ACTIONS 89),
    (anon_sym_await, ACTIONS 95), (sym_true, ACTIONS 93), (sym_false, ACTIONS 93),
    (sym_none, ACTIONS 93), (sym_comment, ACTIONS 3), (sym_line_continuation, ACTIONS 3),
    (sym__dedent, ACTIONS 125), (sym_string_start, ACTIONS 97)]"

definition parse_table_532 :: "(nat \<times> nat) list" where "parse_table_532 = [
    (sym__statement, STATE 927), (sym__simple_statements, STATE 927),
    (sym_import_statement, STATE 11814), (sym_future_import_statement, STATE 11814),
    (sym_import_from_statement, STATE 11814), (sym_print_statement, STATE 11814),
    (sym_assert_statement, STATE 11814), (sym_comptime_assert_statement, STATE 11814),
    (sym_expression_statement, STATE 11814), (sym_tuple_expression, STATE 12425),
    (sym_named_expression, STATE 7969), (sym__named_expression_lhs, STATE 12752),
    (sym_return_statement, STATE 11814), (sym_delete_statement, STATE 11814),
    (sym_raise_statement, STATE 11814), (sym_pass_statement, STATE 11814),
    (sym_break_statement, STATE 11814), (sym_continue_statement, STATE 11814),
    (sym_extension_definition, STATE 927), (sym_mlir_region, STATE 927),
    (sym_comptime_statement, STATE 927), (sym_if_statement, STATE 927),
    (sym_match_statement, STATE 927), (sym_for_statement, STATE 927),
    (sym_while_statement, STATE 927), (sym_try_statement, STATE 927),
    (sym_with_statement, STATE 927), (sym_function_definition, STATE 927),
    (sym_global_statement, STATE 11814), (sym_nonlocal_statement, STATE 11814),
    (sym_exec_statement, STATE 11814), (sym_type_alias_statement, STATE 11814),
    (sym_parameterized_alias_statement, STATE 11814), (sym_class_definition, STATE 927),
    (sym_trait_definition, STATE 927), (sym_decorated_definition, STATE 927),
    (sym_decorator, STATE 3670), (sym_block, STATE 4124), (sym_pattern, STATE 8086),
    (sym_tuple_pattern, STATE 8101), (sym_list_pattern, STATE 8101),
    (sym_list_splat_pattern, STATE 6819), (sym_as_pattern, STATE 7969),
    (sym_expression, STATE 9883), (sym_primary_expression, STATE 7326),
    (sym_comptime_expression, STATE 7017), (sym_transfer_expression, STATE 7017),
    (sym_not_operator, STATE 7969), (sym_boolean_operator, STATE 7969),
    (sym_binary_operator, STATE 7017), (sym_unary_operator, STATE 7017),
    (sym_comparison_operator, STATE 7969), (sym_lambda, STATE 7969),
    (sym_assignment, STATE 12425), (sym_augmented_assignment, STATE 12425),
    (sym_pattern_list, STATE 8578), (sym_yield, STATE 12425), (sym_attribute, STATE 6836),
    (sym_subscript, STATE 6838), (sym_call, STATE 6845), (sym_mlir_type, STATE 7017),
    (sym_list, STATE 7017), (sym_set, STATE 7017), (sym_tuple, STATE 7017),
    (sym_dictionary, STATE 7017), (sym_struct_literal, STATE 7017),
    (sym_list_comprehension, STATE 7017), (sym_dictionary_comprehension, STATE 7017),
    (sym_set_comprehension, STATE 7017), (sym_generator_expression, STATE 7017),
    (sym_parenthesized_expression, STATE 7017), (sym_conditional_expression, STATE 7969),
    (sym_concatenated_string, STATE 7017), (sym_string, STATE 6751), (sym_await, STATE 7017),
    (aux_sym_module_repeat1, STATE 927), (aux_sym_decorated_definition_repeat1, STATE 3670),
    (sym_identifier, ACTIONS 9), (anon_sym_import, ACTIONS 11), (anon_sym_from, ACTIONS 13),
    (anon_sym_LPAREN, ACTIONS 15), (anon_sym_STAR, ACTIONS 17), (anon_sym_print, ACTIONS 19),
    (anon_sym_comptime, ACTIONS 99), (anon_sym_assert, ACTIONS 23),
    (anon_sym___comptime_assert, ACTIONS 25), (anon_sym_return, ACTIONS 27),
    (anon_sym_del, ACTIONS 29), (anon_sym_raise, ACTIONS 31), (anon_sym_pass, ACTIONS 33),
    (anon_sym_break, ACTIONS 35), (anon_sym_continue, ACTIONS 37),
    (anon_sym___extension, ACTIONS 101), (anon_sym___mlir_region, ACTIONS 103),
    (anon_sym_if, ACTIONS 105), (anon_sym_match, ACTIONS 107), (anon_sym_async, ACTIONS 109),
    (anon_sym_for, ACTIONS 111), (anon_sym_while, ACTIONS 113), (anon_sym_try, ACTIONS 115),
    (anon_sym_with, ACTIONS 117), (anon_sym_def, ACTIONS 119), (anon_sym_fn, ACTIONS 119),
    (anon_sym_LBRACK, ACTIONS 59), (anon_sym_LBRACE, ACTIONS 61), (anon_sym_global, ACTIONS 63),
    (anon_sym_nonlocal, ACTIONS 65), (anon_sym_exec, ACTIONS 67), (anon_sym_type, ACTIONS 69),
    (anon_sym_class, ACTIONS 121), (anon_sym_struct, ACTIONS 121), (anon_sym_mut, ACTIONS 73),
    (anon_sym_out, ACTIONS 73), (anon_sym_trait, ACTIONS 123), (anon_sym_AT, ACTIONS 77),
    (anon_sym_DASH, ACTIONS 79), (anon_sym_PLUS, ACTIONS 79), (anon_sym_ref, ACTIONS 81),
    (anon_sym_var, ACTIONS 81), (anon_sym_not, ACTIONS 83), (anon_sym_TILDE, ACTIONS 79),
    (anon_sym_lambda, ACTIONS 85), (anon_sym_yield, ACTIONS 87), (sym_ellipsis, ACTIONS 89),
    (anon_sym___mlir_type, ACTIONS 91), (sym_integer, ACTIONS 93), (sym_float, ACTIONS 89),
    (anon_sym_await, ACTIONS 95), (sym_true, ACTIONS 93), (sym_false, ACTIONS 93),
    (sym_none, ACTIONS 93), (sym_comment, ACTIONS 3), (sym_line_continuation, ACTIONS 3),
    (sym__dedent, ACTIONS 125), (sym_string_start, ACTIONS 97)]"

definition parse_table_533 :: "(nat \<times> nat) list" where "parse_table_533 = [
    (sym__statement, STATE 920), (sym__simple_statements, STATE 920),
    (sym_import_statement, STATE 11814), (sym_future_import_statement, STATE 11814),
    (sym_import_from_statement, STATE 11814), (sym_print_statement, STATE 11814),
    (sym_assert_statement, STATE 11814), (sym_comptime_assert_statement, STATE 11814),
    (sym_expression_statement, STATE 11814), (sym_tuple_expression, STATE 12425),
    (sym_named_expression, STATE 7969), (sym__named_expression_lhs, STATE 12752),
    (sym_return_statement, STATE 11814), (sym_delete_statement, STATE 11814),
    (sym_raise_statement, STATE 11814), (sym_pass_statement, STATE 11814),
    (sym_break_statement, STATE 11814), (sym_continue_statement, STATE 11814),
    (sym_extension_definition, STATE 920), (sym_mlir_region, STATE 920),
    (sym_comptime_statement, STATE 920), (sym_if_statement, STATE 920),
    (sym_match_statement, STATE 920), (sym_for_statement, STATE 920),
    (sym_while_statement, STATE 920), (sym_try_statement, STATE 920),
    (sym_with_statement, STATE 920), (sym_function_definition, STATE 920),
    (sym_global_statement, STATE 11814), (sym_nonlocal_statement, STATE 11814),
    (sym_exec_statement, STATE 11814), (sym_type_alias_statement, STATE 11814),
    (sym_parameterized_alias_statement, STATE 11814), (sym_class_definition, STATE 920),
    (sym_trait_definition, STATE 920), (sym_decorated_definition, STATE 920),
    (sym_decorator, STATE 3670), (sym_block, STATE 4161), (sym_pattern, STATE 8086),
    (sym_tuple_pattern, STATE 8101), (sym_list_pattern, STATE 8101),
    (sym_list_splat_pattern, STATE 6819), (sym_as_pattern, STATE 7969),
    (sym_expression, STATE 9883), (sym_primary_expression, STATE 7326),
    (sym_comptime_expression, STATE 7017), (sym_transfer_expression, STATE 7017),
    (sym_not_operator, STATE 7969), (sym_boolean_operator, STATE 7969),
    (sym_binary_operator, STATE 7017), (sym_unary_operator, STATE 7017),
    (sym_comparison_operator, STATE 7969), (sym_lambda, STATE 7969),
    (sym_assignment, STATE 12425), (sym_augmented_assignment, STATE 12425),
    (sym_pattern_list, STATE 8578), (sym_yield, STATE 12425), (sym_attribute, STATE 6836),
    (sym_subscript, STATE 6838), (sym_call, STATE 6845), (sym_mlir_type, STATE 7017),
    (sym_list, STATE 7017), (sym_set, STATE 7017), (sym_tuple, STATE 7017),
    (sym_dictionary, STATE 7017), (sym_struct_literal, STATE 7017),
    (sym_list_comprehension, STATE 7017), (sym_dictionary_comprehension, STATE 7017),
    (sym_set_comprehension, STATE 7017), (sym_generator_expression, STATE 7017),
    (sym_parenthesized_expression, STATE 7017), (sym_conditional_expression, STATE 7969),
    (sym_concatenated_string, STATE 7017), (sym_string, STATE 6751), (sym_await, STATE 7017),
    (aux_sym_module_repeat1, STATE 920), (aux_sym_decorated_definition_repeat1, STATE 3670),
    (sym_identifier, ACTIONS 9), (anon_sym_import, ACTIONS 11), (anon_sym_from, ACTIONS 13),
    (anon_sym_LPAREN, ACTIONS 15), (anon_sym_STAR, ACTIONS 17), (anon_sym_print, ACTIONS 19),
    (anon_sym_comptime, ACTIONS 99), (anon_sym_assert, ACTIONS 23),
    (anon_sym___comptime_assert, ACTIONS 25), (anon_sym_return, ACTIONS 27),
    (anon_sym_del, ACTIONS 29), (anon_sym_raise, ACTIONS 31), (anon_sym_pass, ACTIONS 33),
    (anon_sym_break, ACTIONS 35), (anon_sym_continue, ACTIONS 37),
    (anon_sym___extension, ACTIONS 101), (anon_sym___mlir_region, ACTIONS 103),
    (anon_sym_if, ACTIONS 105), (anon_sym_match, ACTIONS 107), (anon_sym_async, ACTIONS 109),
    (anon_sym_for, ACTIONS 111), (anon_sym_while, ACTIONS 113), (anon_sym_try, ACTIONS 115),
    (anon_sym_with, ACTIONS 117), (anon_sym_def, ACTIONS 119), (anon_sym_fn, ACTIONS 119),
    (anon_sym_LBRACK, ACTIONS 59), (anon_sym_LBRACE, ACTIONS 61), (anon_sym_global, ACTIONS 63),
    (anon_sym_nonlocal, ACTIONS 65), (anon_sym_exec, ACTIONS 67), (anon_sym_type, ACTIONS 69),
    (anon_sym_class, ACTIONS 121), (anon_sym_struct, ACTIONS 121), (anon_sym_mut, ACTIONS 73),
    (anon_sym_out, ACTIONS 73), (anon_sym_trait, ACTIONS 123), (anon_sym_AT, ACTIONS 77),
    (anon_sym_DASH, ACTIONS 79), (anon_sym_PLUS, ACTIONS 79), (anon_sym_ref, ACTIONS 81),
    (anon_sym_var, ACTIONS 81), (anon_sym_not, ACTIONS 83), (anon_sym_TILDE, ACTIONS 79),
    (anon_sym_lambda, ACTIONS 85), (anon_sym_yield, ACTIONS 87), (sym_ellipsis, ACTIONS 89),
    (anon_sym___mlir_type, ACTIONS 91), (sym_integer, ACTIONS 93), (sym_float, ACTIONS 89),
    (anon_sym_await, ACTIONS 95), (sym_true, ACTIONS 93), (sym_false, ACTIONS 93),
    (sym_none, ACTIONS 93), (sym_comment, ACTIONS 3), (sym_line_continuation, ACTIONS 3),
    (sym__dedent, ACTIONS 135), (sym_string_start, ACTIONS 97)]"

definition parse_table_534 :: "(nat \<times> nat) list" where "parse_table_534 = [
    (sym__statement, STATE 927), (sym__simple_statements, STATE 927),
    (sym_import_statement, STATE 11814), (sym_future_import_statement, STATE 11814),
    (sym_import_from_statement, STATE 11814), (sym_print_statement, STATE 11814),
    (sym_assert_statement, STATE 11814), (sym_comptime_assert_statement, STATE 11814),
    (sym_expression_statement, STATE 11814), (sym_tuple_expression, STATE 12425),
    (sym_named_expression, STATE 7969), (sym__named_expression_lhs, STATE 12752),
    (sym_return_statement, STATE 11814), (sym_delete_statement, STATE 11814),
    (sym_raise_statement, STATE 11814), (sym_pass_statement, STATE 11814),
    (sym_break_statement, STATE 11814), (sym_continue_statement, STATE 11814),
    (sym_extension_definition, STATE 927), (sym_mlir_region, STATE 927),
    (sym_comptime_statement, STATE 927), (sym_if_statement, STATE 927),
    (sym_match_statement, STATE 927), (sym_for_statement, STATE 927),
    (sym_while_statement, STATE 927), (sym_try_statement, STATE 927),
    (sym_with_statement, STATE 927), (sym_function_definition, STATE 927),
    (sym_global_statement, STATE 11814), (sym_nonlocal_statement, STATE 11814),
    (sym_exec_statement, STATE 11814), (sym_type_alias_statement, STATE 11814),
    (sym_parameterized_alias_statement, STATE 11814), (sym_class_definition, STATE 927),
    (sym_trait_definition, STATE 927), (sym_decorated_definition, STATE 927),
    (sym_decorator, STATE 3670), (sym_block, STATE 4897), (sym_pattern, STATE 8086),
    (sym_tuple_pattern, STATE 8101), (sym_list_pattern, STATE 8101),
    (sym_list_splat_pattern, STATE 6819), (sym_as_pattern, STATE 7969),
    (sym_expression, STATE 9883), (sym_primary_expression, STATE 7326),
    (sym_comptime_expression, STATE 7017), (sym_transfer_expression, STATE 7017),
    (sym_not_operator, STATE 7969), (sym_boolean_operator, STATE 7969),
    (sym_binary_operator, STATE 7017), (sym_unary_operator, STATE 7017),
    (sym_comparison_operator, STATE 7969), (sym_lambda, STATE 7969),
    (sym_assignment, STATE 12425), (sym_augmented_assignment, STATE 12425),
    (sym_pattern_list, STATE 8578), (sym_yield, STATE 12425), (sym_attribute, STATE 6836),
    (sym_subscript, STATE 6838), (sym_call, STATE 6845), (sym_mlir_type, STATE 7017),
    (sym_list, STATE 7017), (sym_set, STATE 7017), (sym_tuple, STATE 7017),
    (sym_dictionary, STATE 7017), (sym_struct_literal, STATE 7017),
    (sym_list_comprehension, STATE 7017), (sym_dictionary_comprehension, STATE 7017),
    (sym_set_comprehension, STATE 7017), (sym_generator_expression, STATE 7017),
    (sym_parenthesized_expression, STATE 7017), (sym_conditional_expression, STATE 7969),
    (sym_concatenated_string, STATE 7017), (sym_string, STATE 6751), (sym_await, STATE 7017),
    (aux_sym_module_repeat1, STATE 927), (aux_sym_decorated_definition_repeat1, STATE 3670),
    (sym_identifier, ACTIONS 9), (anon_sym_import, ACTIONS 11), (anon_sym_from, ACTIONS 13),
    (anon_sym_LPAREN, ACTIONS 15), (anon_sym_STAR, ACTIONS 17), (anon_sym_print, ACTIONS 19),
    (anon_sym_comptime, ACTIONS 99), (anon_sym_assert, ACTIONS 23),
    (anon_sym___comptime_assert, ACTIONS 25), (anon_sym_return, ACTIONS 27),
    (anon_sym_del, ACTIONS 29), (anon_sym_raise, ACTIONS 31), (anon_sym_pass, ACTIONS 33),
    (anon_sym_break, ACTIONS 35), (anon_sym_continue, ACTIONS 37),
    (anon_sym___extension, ACTIONS 101), (anon_sym___mlir_region, ACTIONS 103),
    (anon_sym_if, ACTIONS 105), (anon_sym_match, ACTIONS 107), (anon_sym_async, ACTIONS 109),
    (anon_sym_for, ACTIONS 111), (anon_sym_while, ACTIONS 113), (anon_sym_try, ACTIONS 115),
    (anon_sym_with, ACTIONS 117), (anon_sym_def, ACTIONS 119), (anon_sym_fn, ACTIONS 119),
    (anon_sym_LBRACK, ACTIONS 59), (anon_sym_LBRACE, ACTIONS 61), (anon_sym_global, ACTIONS 63),
    (anon_sym_nonlocal, ACTIONS 65), (anon_sym_exec, ACTIONS 67), (anon_sym_type, ACTIONS 69),
    (anon_sym_class, ACTIONS 121), (anon_sym_struct, ACTIONS 121), (anon_sym_mut, ACTIONS 73),
    (anon_sym_out, ACTIONS 73), (anon_sym_trait, ACTIONS 123), (anon_sym_AT, ACTIONS 77),
    (anon_sym_DASH, ACTIONS 79), (anon_sym_PLUS, ACTIONS 79), (anon_sym_ref, ACTIONS 81),
    (anon_sym_var, ACTIONS 81), (anon_sym_not, ACTIONS 83), (anon_sym_TILDE, ACTIONS 79),
    (anon_sym_lambda, ACTIONS 85), (anon_sym_yield, ACTIONS 87), (sym_ellipsis, ACTIONS 89),
    (anon_sym___mlir_type, ACTIONS 91), (sym_integer, ACTIONS 93), (sym_float, ACTIONS 89),
    (anon_sym_await, ACTIONS 95), (sym_true, ACTIONS 93), (sym_false, ACTIONS 93),
    (sym_none, ACTIONS 93), (sym_comment, ACTIONS 3), (sym_line_continuation, ACTIONS 3),
    (sym__dedent, ACTIONS 125), (sym_string_start, ACTIONS 97)]"

definition parse_table_535 :: "(nat \<times> nat) list" where "parse_table_535 = [
    (sym__statement, STATE 927), (sym__simple_statements, STATE 927),
    (sym_import_statement, STATE 11814), (sym_future_import_statement, STATE 11814),
    (sym_import_from_statement, STATE 11814), (sym_print_statement, STATE 11814),
    (sym_assert_statement, STATE 11814), (sym_comptime_assert_statement, STATE 11814),
    (sym_expression_statement, STATE 11814), (sym_tuple_expression, STATE 12425),
    (sym_named_expression, STATE 7969), (sym__named_expression_lhs, STATE 12752),
    (sym_return_statement, STATE 11814), (sym_delete_statement, STATE 11814),
    (sym_raise_statement, STATE 11814), (sym_pass_statement, STATE 11814),
    (sym_break_statement, STATE 11814), (sym_continue_statement, STATE 11814),
    (sym_extension_definition, STATE 927), (sym_mlir_region, STATE 927),
    (sym_comptime_statement, STATE 927), (sym_if_statement, STATE 927),
    (sym_match_statement, STATE 927), (sym_for_statement, STATE 927),
    (sym_while_statement, STATE 927), (sym_try_statement, STATE 927),
    (sym_with_statement, STATE 927), (sym_function_definition, STATE 927),
    (sym_global_statement, STATE 11814), (sym_nonlocal_statement, STATE 11814),
    (sym_exec_statement, STATE 11814), (sym_type_alias_statement, STATE 11814),
    (sym_parameterized_alias_statement, STATE 11814), (sym_class_definition, STATE 927),
    (sym_trait_definition, STATE 927), (sym_decorated_definition, STATE 927),
    (sym_decorator, STATE 3670), (sym_block, STATE 4918), (sym_pattern, STATE 8086),
    (sym_tuple_pattern, STATE 8101), (sym_list_pattern, STATE 8101),
    (sym_list_splat_pattern, STATE 6819), (sym_as_pattern, STATE 7969),
    (sym_expression, STATE 9883), (sym_primary_expression, STATE 7326),
    (sym_comptime_expression, STATE 7017), (sym_transfer_expression, STATE 7017),
    (sym_not_operator, STATE 7969), (sym_boolean_operator, STATE 7969),
    (sym_binary_operator, STATE 7017), (sym_unary_operator, STATE 7017),
    (sym_comparison_operator, STATE 7969), (sym_lambda, STATE 7969),
    (sym_assignment, STATE 12425), (sym_augmented_assignment, STATE 12425),
    (sym_pattern_list, STATE 8578), (sym_yield, STATE 12425), (sym_attribute, STATE 6836),
    (sym_subscript, STATE 6838), (sym_call, STATE 6845), (sym_mlir_type, STATE 7017),
    (sym_list, STATE 7017), (sym_set, STATE 7017), (sym_tuple, STATE 7017),
    (sym_dictionary, STATE 7017), (sym_struct_literal, STATE 7017),
    (sym_list_comprehension, STATE 7017), (sym_dictionary_comprehension, STATE 7017),
    (sym_set_comprehension, STATE 7017), (sym_generator_expression, STATE 7017),
    (sym_parenthesized_expression, STATE 7017), (sym_conditional_expression, STATE 7969),
    (sym_concatenated_string, STATE 7017), (sym_string, STATE 6751), (sym_await, STATE 7017),
    (aux_sym_module_repeat1, STATE 927), (aux_sym_decorated_definition_repeat1, STATE 3670),
    (sym_identifier, ACTIONS 9), (anon_sym_import, ACTIONS 11), (anon_sym_from, ACTIONS 13),
    (anon_sym_LPAREN, ACTIONS 15), (anon_sym_STAR, ACTIONS 17), (anon_sym_print, ACTIONS 19),
    (anon_sym_comptime, ACTIONS 99), (anon_sym_assert, ACTIONS 23),
    (anon_sym___comptime_assert, ACTIONS 25), (anon_sym_return, ACTIONS 27),
    (anon_sym_del, ACTIONS 29), (anon_sym_raise, ACTIONS 31), (anon_sym_pass, ACTIONS 33),
    (anon_sym_break, ACTIONS 35), (anon_sym_continue, ACTIONS 37),
    (anon_sym___extension, ACTIONS 101), (anon_sym___mlir_region, ACTIONS 103),
    (anon_sym_if, ACTIONS 105), (anon_sym_match, ACTIONS 107), (anon_sym_async, ACTIONS 109),
    (anon_sym_for, ACTIONS 111), (anon_sym_while, ACTIONS 113), (anon_sym_try, ACTIONS 115),
    (anon_sym_with, ACTIONS 117), (anon_sym_def, ACTIONS 119), (anon_sym_fn, ACTIONS 119),
    (anon_sym_LBRACK, ACTIONS 59), (anon_sym_LBRACE, ACTIONS 61), (anon_sym_global, ACTIONS 63),
    (anon_sym_nonlocal, ACTIONS 65), (anon_sym_exec, ACTIONS 67), (anon_sym_type, ACTIONS 69),
    (anon_sym_class, ACTIONS 121), (anon_sym_struct, ACTIONS 121), (anon_sym_mut, ACTIONS 73),
    (anon_sym_out, ACTIONS 73), (anon_sym_trait, ACTIONS 123), (anon_sym_AT, ACTIONS 77),
    (anon_sym_DASH, ACTIONS 79), (anon_sym_PLUS, ACTIONS 79), (anon_sym_ref, ACTIONS 81),
    (anon_sym_var, ACTIONS 81), (anon_sym_not, ACTIONS 83), (anon_sym_TILDE, ACTIONS 79),
    (anon_sym_lambda, ACTIONS 85), (anon_sym_yield, ACTIONS 87), (sym_ellipsis, ACTIONS 89),
    (anon_sym___mlir_type, ACTIONS 91), (sym_integer, ACTIONS 93), (sym_float, ACTIONS 89),
    (anon_sym_await, ACTIONS 95), (sym_true, ACTIONS 93), (sym_false, ACTIONS 93),
    (sym_none, ACTIONS 93), (sym_comment, ACTIONS 3), (sym_line_continuation, ACTIONS 3),
    (sym__dedent, ACTIONS 125), (sym_string_start, ACTIONS 97)]"

definition parse_table_536 :: "(nat \<times> nat) list" where "parse_table_536 = [
    (sym__statement, STATE 927), (sym__simple_statements, STATE 927),
    (sym_import_statement, STATE 11814), (sym_future_import_statement, STATE 11814),
    (sym_import_from_statement, STATE 11814), (sym_print_statement, STATE 11814),
    (sym_assert_statement, STATE 11814), (sym_comptime_assert_statement, STATE 11814),
    (sym_expression_statement, STATE 11814), (sym_tuple_expression, STATE 12425),
    (sym_named_expression, STATE 7969), (sym__named_expression_lhs, STATE 12752),
    (sym_return_statement, STATE 11814), (sym_delete_statement, STATE 11814),
    (sym_raise_statement, STATE 11814), (sym_pass_statement, STATE 11814),
    (sym_break_statement, STATE 11814), (sym_continue_statement, STATE 11814),
    (sym_extension_definition, STATE 927), (sym_mlir_region, STATE 927),
    (sym_comptime_statement, STATE 927), (sym_if_statement, STATE 927),
    (sym_match_statement, STATE 927), (sym_for_statement, STATE 927),
    (sym_while_statement, STATE 927), (sym_try_statement, STATE 927),
    (sym_with_statement, STATE 927), (sym_function_definition, STATE 927),
    (sym_global_statement, STATE 11814), (sym_nonlocal_statement, STATE 11814),
    (sym_exec_statement, STATE 11814), (sym_type_alias_statement, STATE 11814),
    (sym_parameterized_alias_statement, STATE 11814), (sym_class_definition, STATE 927),
    (sym_trait_definition, STATE 927), (sym_decorated_definition, STATE 927),
    (sym_decorator, STATE 3670), (sym_block, STATE 4919), (sym_pattern, STATE 8086),
    (sym_tuple_pattern, STATE 8101), (sym_list_pattern, STATE 8101),
    (sym_list_splat_pattern, STATE 6819), (sym_as_pattern, STATE 7969),
    (sym_expression, STATE 9883), (sym_primary_expression, STATE 7326),
    (sym_comptime_expression, STATE 7017), (sym_transfer_expression, STATE 7017),
    (sym_not_operator, STATE 7969), (sym_boolean_operator, STATE 7969),
    (sym_binary_operator, STATE 7017), (sym_unary_operator, STATE 7017),
    (sym_comparison_operator, STATE 7969), (sym_lambda, STATE 7969),
    (sym_assignment, STATE 12425), (sym_augmented_assignment, STATE 12425),
    (sym_pattern_list, STATE 8578), (sym_yield, STATE 12425), (sym_attribute, STATE 6836),
    (sym_subscript, STATE 6838), (sym_call, STATE 6845), (sym_mlir_type, STATE 7017),
    (sym_list, STATE 7017), (sym_set, STATE 7017), (sym_tuple, STATE 7017),
    (sym_dictionary, STATE 7017), (sym_struct_literal, STATE 7017),
    (sym_list_comprehension, STATE 7017), (sym_dictionary_comprehension, STATE 7017),
    (sym_set_comprehension, STATE 7017), (sym_generator_expression, STATE 7017),
    (sym_parenthesized_expression, STATE 7017), (sym_conditional_expression, STATE 7969),
    (sym_concatenated_string, STATE 7017), (sym_string, STATE 6751), (sym_await, STATE 7017),
    (aux_sym_module_repeat1, STATE 927), (aux_sym_decorated_definition_repeat1, STATE 3670),
    (sym_identifier, ACTIONS 9), (anon_sym_import, ACTIONS 11), (anon_sym_from, ACTIONS 13),
    (anon_sym_LPAREN, ACTIONS 15), (anon_sym_STAR, ACTIONS 17), (anon_sym_print, ACTIONS 19),
    (anon_sym_comptime, ACTIONS 99), (anon_sym_assert, ACTIONS 23),
    (anon_sym___comptime_assert, ACTIONS 25), (anon_sym_return, ACTIONS 27),
    (anon_sym_del, ACTIONS 29), (anon_sym_raise, ACTIONS 31), (anon_sym_pass, ACTIONS 33),
    (anon_sym_break, ACTIONS 35), (anon_sym_continue, ACTIONS 37),
    (anon_sym___extension, ACTIONS 101), (anon_sym___mlir_region, ACTIONS 103),
    (anon_sym_if, ACTIONS 105), (anon_sym_match, ACTIONS 107), (anon_sym_async, ACTIONS 109),
    (anon_sym_for, ACTIONS 111), (anon_sym_while, ACTIONS 113), (anon_sym_try, ACTIONS 115),
    (anon_sym_with, ACTIONS 117), (anon_sym_def, ACTIONS 119), (anon_sym_fn, ACTIONS 119),
    (anon_sym_LBRACK, ACTIONS 59), (anon_sym_LBRACE, ACTIONS 61), (anon_sym_global, ACTIONS 63),
    (anon_sym_nonlocal, ACTIONS 65), (anon_sym_exec, ACTIONS 67), (anon_sym_type, ACTIONS 69),
    (anon_sym_class, ACTIONS 121), (anon_sym_struct, ACTIONS 121), (anon_sym_mut, ACTIONS 73),
    (anon_sym_out, ACTIONS 73), (anon_sym_trait, ACTIONS 123), (anon_sym_AT, ACTIONS 77),
    (anon_sym_DASH, ACTIONS 79), (anon_sym_PLUS, ACTIONS 79), (anon_sym_ref, ACTIONS 81),
    (anon_sym_var, ACTIONS 81), (anon_sym_not, ACTIONS 83), (anon_sym_TILDE, ACTIONS 79),
    (anon_sym_lambda, ACTIONS 85), (anon_sym_yield, ACTIONS 87), (sym_ellipsis, ACTIONS 89),
    (anon_sym___mlir_type, ACTIONS 91), (sym_integer, ACTIONS 93), (sym_float, ACTIONS 89),
    (anon_sym_await, ACTIONS 95), (sym_true, ACTIONS 93), (sym_false, ACTIONS 93),
    (sym_none, ACTIONS 93), (sym_comment, ACTIONS 3), (sym_line_continuation, ACTIONS 3),
    (sym__dedent, ACTIONS 125), (sym_string_start, ACTIONS 97)]"

definition parse_table_537 :: "(nat \<times> nat) list" where "parse_table_537 = [
    (sym__statement, STATE 927), (sym__simple_statements, STATE 927),
    (sym_import_statement, STATE 11814), (sym_future_import_statement, STATE 11814),
    (sym_import_from_statement, STATE 11814), (sym_print_statement, STATE 11814),
    (sym_assert_statement, STATE 11814), (sym_comptime_assert_statement, STATE 11814),
    (sym_expression_statement, STATE 11814), (sym_tuple_expression, STATE 12425),
    (sym_named_expression, STATE 7969), (sym__named_expression_lhs, STATE 12752),
    (sym_return_statement, STATE 11814), (sym_delete_statement, STATE 11814),
    (sym_raise_statement, STATE 11814), (sym_pass_statement, STATE 11814),
    (sym_break_statement, STATE 11814), (sym_continue_statement, STATE 11814),
    (sym_extension_definition, STATE 927), (sym_mlir_region, STATE 927),
    (sym_comptime_statement, STATE 927), (sym_if_statement, STATE 927),
    (sym_match_statement, STATE 927), (sym_for_statement, STATE 927),
    (sym_while_statement, STATE 927), (sym_try_statement, STATE 927),
    (sym_with_statement, STATE 927), (sym_function_definition, STATE 927),
    (sym_global_statement, STATE 11814), (sym_nonlocal_statement, STATE 11814),
    (sym_exec_statement, STATE 11814), (sym_type_alias_statement, STATE 11814),
    (sym_parameterized_alias_statement, STATE 11814), (sym_class_definition, STATE 927),
    (sym_trait_definition, STATE 927), (sym_decorated_definition, STATE 927),
    (sym_decorator, STATE 3670), (sym_block, STATE 4925), (sym_pattern, STATE 8086),
    (sym_tuple_pattern, STATE 8101), (sym_list_pattern, STATE 8101),
    (sym_list_splat_pattern, STATE 6819), (sym_as_pattern, STATE 7969),
    (sym_expression, STATE 9883), (sym_primary_expression, STATE 7326),
    (sym_comptime_expression, STATE 7017), (sym_transfer_expression, STATE 7017),
    (sym_not_operator, STATE 7969), (sym_boolean_operator, STATE 7969),
    (sym_binary_operator, STATE 7017), (sym_unary_operator, STATE 7017),
    (sym_comparison_operator, STATE 7969), (sym_lambda, STATE 7969),
    (sym_assignment, STATE 12425), (sym_augmented_assignment, STATE 12425),
    (sym_pattern_list, STATE 8578), (sym_yield, STATE 12425), (sym_attribute, STATE 6836),
    (sym_subscript, STATE 6838), (sym_call, STATE 6845), (sym_mlir_type, STATE 7017),
    (sym_list, STATE 7017), (sym_set, STATE 7017), (sym_tuple, STATE 7017),
    (sym_dictionary, STATE 7017), (sym_struct_literal, STATE 7017),
    (sym_list_comprehension, STATE 7017), (sym_dictionary_comprehension, STATE 7017),
    (sym_set_comprehension, STATE 7017), (sym_generator_expression, STATE 7017),
    (sym_parenthesized_expression, STATE 7017), (sym_conditional_expression, STATE 7969),
    (sym_concatenated_string, STATE 7017), (sym_string, STATE 6751), (sym_await, STATE 7017),
    (aux_sym_module_repeat1, STATE 927), (aux_sym_decorated_definition_repeat1, STATE 3670),
    (sym_identifier, ACTIONS 9), (anon_sym_import, ACTIONS 11), (anon_sym_from, ACTIONS 13),
    (anon_sym_LPAREN, ACTIONS 15), (anon_sym_STAR, ACTIONS 17), (anon_sym_print, ACTIONS 19),
    (anon_sym_comptime, ACTIONS 99), (anon_sym_assert, ACTIONS 23),
    (anon_sym___comptime_assert, ACTIONS 25), (anon_sym_return, ACTIONS 27),
    (anon_sym_del, ACTIONS 29), (anon_sym_raise, ACTIONS 31), (anon_sym_pass, ACTIONS 33),
    (anon_sym_break, ACTIONS 35), (anon_sym_continue, ACTIONS 37),
    (anon_sym___extension, ACTIONS 101), (anon_sym___mlir_region, ACTIONS 103),
    (anon_sym_if, ACTIONS 105), (anon_sym_match, ACTIONS 107), (anon_sym_async, ACTIONS 109),
    (anon_sym_for, ACTIONS 111), (anon_sym_while, ACTIONS 113), (anon_sym_try, ACTIONS 115),
    (anon_sym_with, ACTIONS 117), (anon_sym_def, ACTIONS 119), (anon_sym_fn, ACTIONS 119),
    (anon_sym_LBRACK, ACTIONS 59), (anon_sym_LBRACE, ACTIONS 61), (anon_sym_global, ACTIONS 63),
    (anon_sym_nonlocal, ACTIONS 65), (anon_sym_exec, ACTIONS 67), (anon_sym_type, ACTIONS 69),
    (anon_sym_class, ACTIONS 121), (anon_sym_struct, ACTIONS 121), (anon_sym_mut, ACTIONS 73),
    (anon_sym_out, ACTIONS 73), (anon_sym_trait, ACTIONS 123), (anon_sym_AT, ACTIONS 77),
    (anon_sym_DASH, ACTIONS 79), (anon_sym_PLUS, ACTIONS 79), (anon_sym_ref, ACTIONS 81),
    (anon_sym_var, ACTIONS 81), (anon_sym_not, ACTIONS 83), (anon_sym_TILDE, ACTIONS 79),
    (anon_sym_lambda, ACTIONS 85), (anon_sym_yield, ACTIONS 87), (sym_ellipsis, ACTIONS 89),
    (anon_sym___mlir_type, ACTIONS 91), (sym_integer, ACTIONS 93), (sym_float, ACTIONS 89),
    (anon_sym_await, ACTIONS 95), (sym_true, ACTIONS 93), (sym_false, ACTIONS 93),
    (sym_none, ACTIONS 93), (sym_comment, ACTIONS 3), (sym_line_continuation, ACTIONS 3),
    (sym__dedent, ACTIONS 125), (sym_string_start, ACTIONS 97)]"

definition parse_table_538 :: "(nat \<times> nat) list" where "parse_table_538 = [
    (sym__statement, STATE 927), (sym__simple_statements, STATE 927),
    (sym_import_statement, STATE 11814), (sym_future_import_statement, STATE 11814),
    (sym_import_from_statement, STATE 11814), (sym_print_statement, STATE 11814),
    (sym_assert_statement, STATE 11814), (sym_comptime_assert_statement, STATE 11814),
    (sym_expression_statement, STATE 11814), (sym_tuple_expression, STATE 12425),
    (sym_named_expression, STATE 7969), (sym__named_expression_lhs, STATE 12752),
    (sym_return_statement, STATE 11814), (sym_delete_statement, STATE 11814),
    (sym_raise_statement, STATE 11814), (sym_pass_statement, STATE 11814),
    (sym_break_statement, STATE 11814), (sym_continue_statement, STATE 11814),
    (sym_extension_definition, STATE 927), (sym_mlir_region, STATE 927),
    (sym_comptime_statement, STATE 927), (sym_if_statement, STATE 927),
    (sym_match_statement, STATE 927), (sym_for_statement, STATE 927),
    (sym_while_statement, STATE 927), (sym_try_statement, STATE 927),
    (sym_with_statement, STATE 927), (sym_function_definition, STATE 927),
    (sym_global_statement, STATE 11814), (sym_nonlocal_statement, STATE 11814),
    (sym_exec_statement, STATE 11814), (sym_type_alias_statement, STATE 11814),
    (sym_parameterized_alias_statement, STATE 11814), (sym_class_definition, STATE 927),
    (sym_trait_definition, STATE 927), (sym_decorated_definition, STATE 927),
    (sym_decorator, STATE 3670), (sym_block, STATE 4936), (sym_pattern, STATE 8086),
    (sym_tuple_pattern, STATE 8101), (sym_list_pattern, STATE 8101),
    (sym_list_splat_pattern, STATE 6819), (sym_as_pattern, STATE 7969),
    (sym_expression, STATE 9883), (sym_primary_expression, STATE 7326),
    (sym_comptime_expression, STATE 7017), (sym_transfer_expression, STATE 7017),
    (sym_not_operator, STATE 7969), (sym_boolean_operator, STATE 7969),
    (sym_binary_operator, STATE 7017), (sym_unary_operator, STATE 7017),
    (sym_comparison_operator, STATE 7969), (sym_lambda, STATE 7969),
    (sym_assignment, STATE 12425), (sym_augmented_assignment, STATE 12425),
    (sym_pattern_list, STATE 8578), (sym_yield, STATE 12425), (sym_attribute, STATE 6836),
    (sym_subscript, STATE 6838), (sym_call, STATE 6845), (sym_mlir_type, STATE 7017),
    (sym_list, STATE 7017), (sym_set, STATE 7017), (sym_tuple, STATE 7017),
    (sym_dictionary, STATE 7017), (sym_struct_literal, STATE 7017),
    (sym_list_comprehension, STATE 7017), (sym_dictionary_comprehension, STATE 7017),
    (sym_set_comprehension, STATE 7017), (sym_generator_expression, STATE 7017),
    (sym_parenthesized_expression, STATE 7017), (sym_conditional_expression, STATE 7969),
    (sym_concatenated_string, STATE 7017), (sym_string, STATE 6751), (sym_await, STATE 7017),
    (aux_sym_module_repeat1, STATE 927), (aux_sym_decorated_definition_repeat1, STATE 3670),
    (sym_identifier, ACTIONS 9), (anon_sym_import, ACTIONS 11), (anon_sym_from, ACTIONS 13),
    (anon_sym_LPAREN, ACTIONS 15), (anon_sym_STAR, ACTIONS 17), (anon_sym_print, ACTIONS 19),
    (anon_sym_comptime, ACTIONS 99), (anon_sym_assert, ACTIONS 23),
    (anon_sym___comptime_assert, ACTIONS 25), (anon_sym_return, ACTIONS 27),
    (anon_sym_del, ACTIONS 29), (anon_sym_raise, ACTIONS 31), (anon_sym_pass, ACTIONS 33),
    (anon_sym_break, ACTIONS 35), (anon_sym_continue, ACTIONS 37),
    (anon_sym___extension, ACTIONS 101), (anon_sym___mlir_region, ACTIONS 103),
    (anon_sym_if, ACTIONS 105), (anon_sym_match, ACTIONS 107), (anon_sym_async, ACTIONS 109),
    (anon_sym_for, ACTIONS 111), (anon_sym_while, ACTIONS 113), (anon_sym_try, ACTIONS 115),
    (anon_sym_with, ACTIONS 117), (anon_sym_def, ACTIONS 119), (anon_sym_fn, ACTIONS 119),
    (anon_sym_LBRACK, ACTIONS 59), (anon_sym_LBRACE, ACTIONS 61), (anon_sym_global, ACTIONS 63),
    (anon_sym_nonlocal, ACTIONS 65), (anon_sym_exec, ACTIONS 67), (anon_sym_type, ACTIONS 69),
    (anon_sym_class, ACTIONS 121), (anon_sym_struct, ACTIONS 121), (anon_sym_mut, ACTIONS 73),
    (anon_sym_out, ACTIONS 73), (anon_sym_trait, ACTIONS 123), (anon_sym_AT, ACTIONS 77),
    (anon_sym_DASH, ACTIONS 79), (anon_sym_PLUS, ACTIONS 79), (anon_sym_ref, ACTIONS 81),
    (anon_sym_var, ACTIONS 81), (anon_sym_not, ACTIONS 83), (anon_sym_TILDE, ACTIONS 79),
    (anon_sym_lambda, ACTIONS 85), (anon_sym_yield, ACTIONS 87), (sym_ellipsis, ACTIONS 89),
    (anon_sym___mlir_type, ACTIONS 91), (sym_integer, ACTIONS 93), (sym_float, ACTIONS 89),
    (anon_sym_await, ACTIONS 95), (sym_true, ACTIONS 93), (sym_false, ACTIONS 93),
    (sym_none, ACTIONS 93), (sym_comment, ACTIONS 3), (sym_line_continuation, ACTIONS 3),
    (sym__dedent, ACTIONS 125), (sym_string_start, ACTIONS 97)]"

definition parse_table_539 :: "(nat \<times> nat) list" where "parse_table_539 = [
    (sym__statement, STATE 927), (sym__simple_statements, STATE 927),
    (sym_import_statement, STATE 11814), (sym_future_import_statement, STATE 11814),
    (sym_import_from_statement, STATE 11814), (sym_print_statement, STATE 11814),
    (sym_assert_statement, STATE 11814), (sym_comptime_assert_statement, STATE 11814),
    (sym_expression_statement, STATE 11814), (sym_tuple_expression, STATE 12425),
    (sym_named_expression, STATE 7969), (sym__named_expression_lhs, STATE 12752),
    (sym_return_statement, STATE 11814), (sym_delete_statement, STATE 11814),
    (sym_raise_statement, STATE 11814), (sym_pass_statement, STATE 11814),
    (sym_break_statement, STATE 11814), (sym_continue_statement, STATE 11814),
    (sym_extension_definition, STATE 927), (sym_mlir_region, STATE 927),
    (sym_comptime_statement, STATE 927), (sym_if_statement, STATE 927),
    (sym_match_statement, STATE 927), (sym_for_statement, STATE 927),
    (sym_while_statement, STATE 927), (sym_try_statement, STATE 927),
    (sym_with_statement, STATE 927), (sym_function_definition, STATE 927),
    (sym_global_statement, STATE 11814), (sym_nonlocal_statement, STATE 11814),
    (sym_exec_statement, STATE 11814), (sym_type_alias_statement, STATE 11814),
    (sym_parameterized_alias_statement, STATE 11814), (sym_class_definition, STATE 927),
    (sym_trait_definition, STATE 927), (sym_decorated_definition, STATE 927),
    (sym_decorator, STATE 3670), (sym_block, STATE 4941), (sym_pattern, STATE 8086),
    (sym_tuple_pattern, STATE 8101), (sym_list_pattern, STATE 8101),
    (sym_list_splat_pattern, STATE 6819), (sym_as_pattern, STATE 7969),
    (sym_expression, STATE 9883), (sym_primary_expression, STATE 7326),
    (sym_comptime_expression, STATE 7017), (sym_transfer_expression, STATE 7017),
    (sym_not_operator, STATE 7969), (sym_boolean_operator, STATE 7969),
    (sym_binary_operator, STATE 7017), (sym_unary_operator, STATE 7017),
    (sym_comparison_operator, STATE 7969), (sym_lambda, STATE 7969),
    (sym_assignment, STATE 12425), (sym_augmented_assignment, STATE 12425),
    (sym_pattern_list, STATE 8578), (sym_yield, STATE 12425), (sym_attribute, STATE 6836),
    (sym_subscript, STATE 6838), (sym_call, STATE 6845), (sym_mlir_type, STATE 7017),
    (sym_list, STATE 7017), (sym_set, STATE 7017), (sym_tuple, STATE 7017),
    (sym_dictionary, STATE 7017), (sym_struct_literal, STATE 7017),
    (sym_list_comprehension, STATE 7017), (sym_dictionary_comprehension, STATE 7017),
    (sym_set_comprehension, STATE 7017), (sym_generator_expression, STATE 7017),
    (sym_parenthesized_expression, STATE 7017), (sym_conditional_expression, STATE 7969),
    (sym_concatenated_string, STATE 7017), (sym_string, STATE 6751), (sym_await, STATE 7017),
    (aux_sym_module_repeat1, STATE 927), (aux_sym_decorated_definition_repeat1, STATE 3670),
    (sym_identifier, ACTIONS 9), (anon_sym_import, ACTIONS 11), (anon_sym_from, ACTIONS 13),
    (anon_sym_LPAREN, ACTIONS 15), (anon_sym_STAR, ACTIONS 17), (anon_sym_print, ACTIONS 19),
    (anon_sym_comptime, ACTIONS 99), (anon_sym_assert, ACTIONS 23),
    (anon_sym___comptime_assert, ACTIONS 25), (anon_sym_return, ACTIONS 27),
    (anon_sym_del, ACTIONS 29), (anon_sym_raise, ACTIONS 31), (anon_sym_pass, ACTIONS 33),
    (anon_sym_break, ACTIONS 35), (anon_sym_continue, ACTIONS 37),
    (anon_sym___extension, ACTIONS 101), (anon_sym___mlir_region, ACTIONS 103),
    (anon_sym_if, ACTIONS 105), (anon_sym_match, ACTIONS 107), (anon_sym_async, ACTIONS 109),
    (anon_sym_for, ACTIONS 111), (anon_sym_while, ACTIONS 113), (anon_sym_try, ACTIONS 115),
    (anon_sym_with, ACTIONS 117), (anon_sym_def, ACTIONS 119), (anon_sym_fn, ACTIONS 119),
    (anon_sym_LBRACK, ACTIONS 59), (anon_sym_LBRACE, ACTIONS 61), (anon_sym_global, ACTIONS 63),
    (anon_sym_nonlocal, ACTIONS 65), (anon_sym_exec, ACTIONS 67), (anon_sym_type, ACTIONS 69),
    (anon_sym_class, ACTIONS 121), (anon_sym_struct, ACTIONS 121), (anon_sym_mut, ACTIONS 73),
    (anon_sym_out, ACTIONS 73), (anon_sym_trait, ACTIONS 123), (anon_sym_AT, ACTIONS 77),
    (anon_sym_DASH, ACTIONS 79), (anon_sym_PLUS, ACTIONS 79), (anon_sym_ref, ACTIONS 81),
    (anon_sym_var, ACTIONS 81), (anon_sym_not, ACTIONS 83), (anon_sym_TILDE, ACTIONS 79),
    (anon_sym_lambda, ACTIONS 85), (anon_sym_yield, ACTIONS 87), (sym_ellipsis, ACTIONS 89),
    (anon_sym___mlir_type, ACTIONS 91), (sym_integer, ACTIONS 93), (sym_float, ACTIONS 89),
    (anon_sym_await, ACTIONS 95), (sym_true, ACTIONS 93), (sym_false, ACTIONS 93),
    (sym_none, ACTIONS 93), (sym_comment, ACTIONS 3), (sym_line_continuation, ACTIONS 3),
    (sym__dedent, ACTIONS 125), (sym_string_start, ACTIONS 97)]"

definition parse_table_540 :: "(nat \<times> nat) list" where "parse_table_540 = [
    (sym__statement, STATE 927), (sym__simple_statements, STATE 927),
    (sym_import_statement, STATE 11814), (sym_future_import_statement, STATE 11814),
    (sym_import_from_statement, STATE 11814), (sym_print_statement, STATE 11814),
    (sym_assert_statement, STATE 11814), (sym_comptime_assert_statement, STATE 11814),
    (sym_expression_statement, STATE 11814), (sym_tuple_expression, STATE 12425),
    (sym_named_expression, STATE 7969), (sym__named_expression_lhs, STATE 12752),
    (sym_return_statement, STATE 11814), (sym_delete_statement, STATE 11814),
    (sym_raise_statement, STATE 11814), (sym_pass_statement, STATE 11814),
    (sym_break_statement, STATE 11814), (sym_continue_statement, STATE 11814),
    (sym_extension_definition, STATE 927), (sym_mlir_region, STATE 927),
    (sym_comptime_statement, STATE 927), (sym_if_statement, STATE 927),
    (sym_match_statement, STATE 927), (sym_for_statement, STATE 927),
    (sym_while_statement, STATE 927), (sym_try_statement, STATE 927),
    (sym_with_statement, STATE 927), (sym_function_definition, STATE 927),
    (sym_global_statement, STATE 11814), (sym_nonlocal_statement, STATE 11814),
    (sym_exec_statement, STATE 11814), (sym_type_alias_statement, STATE 11814),
    (sym_parameterized_alias_statement, STATE 11814), (sym_class_definition, STATE 927),
    (sym_trait_definition, STATE 927), (sym_decorated_definition, STATE 927),
    (sym_decorator, STATE 3670), (sym_block, STATE 4956), (sym_pattern, STATE 8086),
    (sym_tuple_pattern, STATE 8101), (sym_list_pattern, STATE 8101),
    (sym_list_splat_pattern, STATE 6819), (sym_as_pattern, STATE 7969),
    (sym_expression, STATE 9883), (sym_primary_expression, STATE 7326),
    (sym_comptime_expression, STATE 7017), (sym_transfer_expression, STATE 7017),
    (sym_not_operator, STATE 7969), (sym_boolean_operator, STATE 7969),
    (sym_binary_operator, STATE 7017), (sym_unary_operator, STATE 7017),
    (sym_comparison_operator, STATE 7969), (sym_lambda, STATE 7969),
    (sym_assignment, STATE 12425), (sym_augmented_assignment, STATE 12425),
    (sym_pattern_list, STATE 8578), (sym_yield, STATE 12425), (sym_attribute, STATE 6836),
    (sym_subscript, STATE 6838), (sym_call, STATE 6845), (sym_mlir_type, STATE 7017),
    (sym_list, STATE 7017), (sym_set, STATE 7017), (sym_tuple, STATE 7017),
    (sym_dictionary, STATE 7017), (sym_struct_literal, STATE 7017),
    (sym_list_comprehension, STATE 7017), (sym_dictionary_comprehension, STATE 7017),
    (sym_set_comprehension, STATE 7017), (sym_generator_expression, STATE 7017),
    (sym_parenthesized_expression, STATE 7017), (sym_conditional_expression, STATE 7969),
    (sym_concatenated_string, STATE 7017), (sym_string, STATE 6751), (sym_await, STATE 7017),
    (aux_sym_module_repeat1, STATE 927), (aux_sym_decorated_definition_repeat1, STATE 3670),
    (sym_identifier, ACTIONS 9), (anon_sym_import, ACTIONS 11), (anon_sym_from, ACTIONS 13),
    (anon_sym_LPAREN, ACTIONS 15), (anon_sym_STAR, ACTIONS 17), (anon_sym_print, ACTIONS 19),
    (anon_sym_comptime, ACTIONS 99), (anon_sym_assert, ACTIONS 23),
    (anon_sym___comptime_assert, ACTIONS 25), (anon_sym_return, ACTIONS 27),
    (anon_sym_del, ACTIONS 29), (anon_sym_raise, ACTIONS 31), (anon_sym_pass, ACTIONS 33),
    (anon_sym_break, ACTIONS 35), (anon_sym_continue, ACTIONS 37),
    (anon_sym___extension, ACTIONS 101), (anon_sym___mlir_region, ACTIONS 103),
    (anon_sym_if, ACTIONS 105), (anon_sym_match, ACTIONS 107), (anon_sym_async, ACTIONS 109),
    (anon_sym_for, ACTIONS 111), (anon_sym_while, ACTIONS 113), (anon_sym_try, ACTIONS 115),
    (anon_sym_with, ACTIONS 117), (anon_sym_def, ACTIONS 119), (anon_sym_fn, ACTIONS 119),
    (anon_sym_LBRACK, ACTIONS 59), (anon_sym_LBRACE, ACTIONS 61), (anon_sym_global, ACTIONS 63),
    (anon_sym_nonlocal, ACTIONS 65), (anon_sym_exec, ACTIONS 67), (anon_sym_type, ACTIONS 69),
    (anon_sym_class, ACTIONS 121), (anon_sym_struct, ACTIONS 121), (anon_sym_mut, ACTIONS 73),
    (anon_sym_out, ACTIONS 73), (anon_sym_trait, ACTIONS 123), (anon_sym_AT, ACTIONS 77),
    (anon_sym_DASH, ACTIONS 79), (anon_sym_PLUS, ACTIONS 79), (anon_sym_ref, ACTIONS 81),
    (anon_sym_var, ACTIONS 81), (anon_sym_not, ACTIONS 83), (anon_sym_TILDE, ACTIONS 79),
    (anon_sym_lambda, ACTIONS 85), (anon_sym_yield, ACTIONS 87), (sym_ellipsis, ACTIONS 89),
    (anon_sym___mlir_type, ACTIONS 91), (sym_integer, ACTIONS 93), (sym_float, ACTIONS 89),
    (anon_sym_await, ACTIONS 95), (sym_true, ACTIONS 93), (sym_false, ACTIONS 93),
    (sym_none, ACTIONS 93), (sym_comment, ACTIONS 3), (sym_line_continuation, ACTIONS 3),
    (sym__dedent, ACTIONS 125), (sym_string_start, ACTIONS 97)]"

definition parse_table_541 :: "(nat \<times> nat) list" where "parse_table_541 = [
    (sym__statement, STATE 927), (sym__simple_statements, STATE 927),
    (sym_import_statement, STATE 11814), (sym_future_import_statement, STATE 11814),
    (sym_import_from_statement, STATE 11814), (sym_print_statement, STATE 11814),
    (sym_assert_statement, STATE 11814), (sym_comptime_assert_statement, STATE 11814),
    (sym_expression_statement, STATE 11814), (sym_tuple_expression, STATE 12425),
    (sym_named_expression, STATE 7969), (sym__named_expression_lhs, STATE 12752),
    (sym_return_statement, STATE 11814), (sym_delete_statement, STATE 11814),
    (sym_raise_statement, STATE 11814), (sym_pass_statement, STATE 11814),
    (sym_break_statement, STATE 11814), (sym_continue_statement, STATE 11814),
    (sym_extension_definition, STATE 927), (sym_mlir_region, STATE 927),
    (sym_comptime_statement, STATE 927), (sym_if_statement, STATE 927),
    (sym_match_statement, STATE 927), (sym_for_statement, STATE 927),
    (sym_while_statement, STATE 927), (sym_try_statement, STATE 927),
    (sym_with_statement, STATE 927), (sym_function_definition, STATE 927),
    (sym_global_statement, STATE 11814), (sym_nonlocal_statement, STATE 11814),
    (sym_exec_statement, STATE 11814), (sym_type_alias_statement, STATE 11814),
    (sym_parameterized_alias_statement, STATE 11814), (sym_class_definition, STATE 927),
    (sym_trait_definition, STATE 927), (sym_decorated_definition, STATE 927),
    (sym_decorator, STATE 3670), (sym_block, STATE 4969), (sym_pattern, STATE 8086),
    (sym_tuple_pattern, STATE 8101), (sym_list_pattern, STATE 8101),
    (sym_list_splat_pattern, STATE 6819), (sym_as_pattern, STATE 7969),
    (sym_expression, STATE 9883), (sym_primary_expression, STATE 7326),
    (sym_comptime_expression, STATE 7017), (sym_transfer_expression, STATE 7017),
    (sym_not_operator, STATE 7969), (sym_boolean_operator, STATE 7969),
    (sym_binary_operator, STATE 7017), (sym_unary_operator, STATE 7017),
    (sym_comparison_operator, STATE 7969), (sym_lambda, STATE 7969),
    (sym_assignment, STATE 12425), (sym_augmented_assignment, STATE 12425),
    (sym_pattern_list, STATE 8578), (sym_yield, STATE 12425), (sym_attribute, STATE 6836),
    (sym_subscript, STATE 6838), (sym_call, STATE 6845), (sym_mlir_type, STATE 7017),
    (sym_list, STATE 7017), (sym_set, STATE 7017), (sym_tuple, STATE 7017),
    (sym_dictionary, STATE 7017), (sym_struct_literal, STATE 7017),
    (sym_list_comprehension, STATE 7017), (sym_dictionary_comprehension, STATE 7017),
    (sym_set_comprehension, STATE 7017), (sym_generator_expression, STATE 7017),
    (sym_parenthesized_expression, STATE 7017), (sym_conditional_expression, STATE 7969),
    (sym_concatenated_string, STATE 7017), (sym_string, STATE 6751), (sym_await, STATE 7017),
    (aux_sym_module_repeat1, STATE 927), (aux_sym_decorated_definition_repeat1, STATE 3670),
    (sym_identifier, ACTIONS 9), (anon_sym_import, ACTIONS 11), (anon_sym_from, ACTIONS 13),
    (anon_sym_LPAREN, ACTIONS 15), (anon_sym_STAR, ACTIONS 17), (anon_sym_print, ACTIONS 19),
    (anon_sym_comptime, ACTIONS 99), (anon_sym_assert, ACTIONS 23),
    (anon_sym___comptime_assert, ACTIONS 25), (anon_sym_return, ACTIONS 27),
    (anon_sym_del, ACTIONS 29), (anon_sym_raise, ACTIONS 31), (anon_sym_pass, ACTIONS 33),
    (anon_sym_break, ACTIONS 35), (anon_sym_continue, ACTIONS 37),
    (anon_sym___extension, ACTIONS 101), (anon_sym___mlir_region, ACTIONS 103),
    (anon_sym_if, ACTIONS 105), (anon_sym_match, ACTIONS 107), (anon_sym_async, ACTIONS 109),
    (anon_sym_for, ACTIONS 111), (anon_sym_while, ACTIONS 113), (anon_sym_try, ACTIONS 115),
    (anon_sym_with, ACTIONS 117), (anon_sym_def, ACTIONS 119), (anon_sym_fn, ACTIONS 119),
    (anon_sym_LBRACK, ACTIONS 59), (anon_sym_LBRACE, ACTIONS 61), (anon_sym_global, ACTIONS 63),
    (anon_sym_nonlocal, ACTIONS 65), (anon_sym_exec, ACTIONS 67), (anon_sym_type, ACTIONS 69),
    (anon_sym_class, ACTIONS 121), (anon_sym_struct, ACTIONS 121), (anon_sym_mut, ACTIONS 73),
    (anon_sym_out, ACTIONS 73), (anon_sym_trait, ACTIONS 123), (anon_sym_AT, ACTIONS 77),
    (anon_sym_DASH, ACTIONS 79), (anon_sym_PLUS, ACTIONS 79), (anon_sym_ref, ACTIONS 81),
    (anon_sym_var, ACTIONS 81), (anon_sym_not, ACTIONS 83), (anon_sym_TILDE, ACTIONS 79),
    (anon_sym_lambda, ACTIONS 85), (anon_sym_yield, ACTIONS 87), (sym_ellipsis, ACTIONS 89),
    (anon_sym___mlir_type, ACTIONS 91), (sym_integer, ACTIONS 93), (sym_float, ACTIONS 89),
    (anon_sym_await, ACTIONS 95), (sym_true, ACTIONS 93), (sym_false, ACTIONS 93),
    (sym_none, ACTIONS 93), (sym_comment, ACTIONS 3), (sym_line_continuation, ACTIONS 3),
    (sym__dedent, ACTIONS 125), (sym_string_start, ACTIONS 97)]"

definition parse_table_542 :: "(nat \<times> nat) list" where "parse_table_542 = [
    (sym__statement, STATE 927), (sym__simple_statements, STATE 927),
    (sym_import_statement, STATE 11814), (sym_future_import_statement, STATE 11814),
    (sym_import_from_statement, STATE 11814), (sym_print_statement, STATE 11814),
    (sym_assert_statement, STATE 11814), (sym_comptime_assert_statement, STATE 11814),
    (sym_expression_statement, STATE 11814), (sym_tuple_expression, STATE 12425),
    (sym_named_expression, STATE 7969), (sym__named_expression_lhs, STATE 12752),
    (sym_return_statement, STATE 11814), (sym_delete_statement, STATE 11814),
    (sym_raise_statement, STATE 11814), (sym_pass_statement, STATE 11814),
    (sym_break_statement, STATE 11814), (sym_continue_statement, STATE 11814),
    (sym_extension_definition, STATE 927), (sym_mlir_region, STATE 927),
    (sym_comptime_statement, STATE 927), (sym_if_statement, STATE 927),
    (sym_match_statement, STATE 927), (sym_for_statement, STATE 927),
    (sym_while_statement, STATE 927), (sym_try_statement, STATE 927),
    (sym_with_statement, STATE 927), (sym_function_definition, STATE 927),
    (sym_global_statement, STATE 11814), (sym_nonlocal_statement, STATE 11814),
    (sym_exec_statement, STATE 11814), (sym_type_alias_statement, STATE 11814),
    (sym_parameterized_alias_statement, STATE 11814), (sym_class_definition, STATE 927),
    (sym_trait_definition, STATE 927), (sym_decorated_definition, STATE 927),
    (sym_decorator, STATE 3670), (sym_block, STATE 4971), (sym_pattern, STATE 8086),
    (sym_tuple_pattern, STATE 8101), (sym_list_pattern, STATE 8101),
    (sym_list_splat_pattern, STATE 6819), (sym_as_pattern, STATE 7969),
    (sym_expression, STATE 9883), (sym_primary_expression, STATE 7326),
    (sym_comptime_expression, STATE 7017), (sym_transfer_expression, STATE 7017),
    (sym_not_operator, STATE 7969), (sym_boolean_operator, STATE 7969),
    (sym_binary_operator, STATE 7017), (sym_unary_operator, STATE 7017),
    (sym_comparison_operator, STATE 7969), (sym_lambda, STATE 7969),
    (sym_assignment, STATE 12425), (sym_augmented_assignment, STATE 12425),
    (sym_pattern_list, STATE 8578), (sym_yield, STATE 12425), (sym_attribute, STATE 6836),
    (sym_subscript, STATE 6838), (sym_call, STATE 6845), (sym_mlir_type, STATE 7017),
    (sym_list, STATE 7017), (sym_set, STATE 7017), (sym_tuple, STATE 7017),
    (sym_dictionary, STATE 7017), (sym_struct_literal, STATE 7017),
    (sym_list_comprehension, STATE 7017), (sym_dictionary_comprehension, STATE 7017),
    (sym_set_comprehension, STATE 7017), (sym_generator_expression, STATE 7017),
    (sym_parenthesized_expression, STATE 7017), (sym_conditional_expression, STATE 7969),
    (sym_concatenated_string, STATE 7017), (sym_string, STATE 6751), (sym_await, STATE 7017),
    (aux_sym_module_repeat1, STATE 927), (aux_sym_decorated_definition_repeat1, STATE 3670),
    (sym_identifier, ACTIONS 9), (anon_sym_import, ACTIONS 11), (anon_sym_from, ACTIONS 13),
    (anon_sym_LPAREN, ACTIONS 15), (anon_sym_STAR, ACTIONS 17), (anon_sym_print, ACTIONS 19),
    (anon_sym_comptime, ACTIONS 99), (anon_sym_assert, ACTIONS 23),
    (anon_sym___comptime_assert, ACTIONS 25), (anon_sym_return, ACTIONS 27),
    (anon_sym_del, ACTIONS 29), (anon_sym_raise, ACTIONS 31), (anon_sym_pass, ACTIONS 33),
    (anon_sym_break, ACTIONS 35), (anon_sym_continue, ACTIONS 37),
    (anon_sym___extension, ACTIONS 101), (anon_sym___mlir_region, ACTIONS 103),
    (anon_sym_if, ACTIONS 105), (anon_sym_match, ACTIONS 107), (anon_sym_async, ACTIONS 109),
    (anon_sym_for, ACTIONS 111), (anon_sym_while, ACTIONS 113), (anon_sym_try, ACTIONS 115),
    (anon_sym_with, ACTIONS 117), (anon_sym_def, ACTIONS 119), (anon_sym_fn, ACTIONS 119),
    (anon_sym_LBRACK, ACTIONS 59), (anon_sym_LBRACE, ACTIONS 61), (anon_sym_global, ACTIONS 63),
    (anon_sym_nonlocal, ACTIONS 65), (anon_sym_exec, ACTIONS 67), (anon_sym_type, ACTIONS 69),
    (anon_sym_class, ACTIONS 121), (anon_sym_struct, ACTIONS 121), (anon_sym_mut, ACTIONS 73),
    (anon_sym_out, ACTIONS 73), (anon_sym_trait, ACTIONS 123), (anon_sym_AT, ACTIONS 77),
    (anon_sym_DASH, ACTIONS 79), (anon_sym_PLUS, ACTIONS 79), (anon_sym_ref, ACTIONS 81),
    (anon_sym_var, ACTIONS 81), (anon_sym_not, ACTIONS 83), (anon_sym_TILDE, ACTIONS 79),
    (anon_sym_lambda, ACTIONS 85), (anon_sym_yield, ACTIONS 87), (sym_ellipsis, ACTIONS 89),
    (anon_sym___mlir_type, ACTIONS 91), (sym_integer, ACTIONS 93), (sym_float, ACTIONS 89),
    (anon_sym_await, ACTIONS 95), (sym_true, ACTIONS 93), (sym_false, ACTIONS 93),
    (sym_none, ACTIONS 93), (sym_comment, ACTIONS 3), (sym_line_continuation, ACTIONS 3),
    (sym__dedent, ACTIONS 125), (sym_string_start, ACTIONS 97)]"

definition parse_table_543 :: "(nat \<times> nat) list" where "parse_table_543 = [
    (sym__statement, STATE 927), (sym__simple_statements, STATE 927),
    (sym_import_statement, STATE 11814), (sym_future_import_statement, STATE 11814),
    (sym_import_from_statement, STATE 11814), (sym_print_statement, STATE 11814),
    (sym_assert_statement, STATE 11814), (sym_comptime_assert_statement, STATE 11814),
    (sym_expression_statement, STATE 11814), (sym_tuple_expression, STATE 12425),
    (sym_named_expression, STATE 7969), (sym__named_expression_lhs, STATE 12752),
    (sym_return_statement, STATE 11814), (sym_delete_statement, STATE 11814),
    (sym_raise_statement, STATE 11814), (sym_pass_statement, STATE 11814),
    (sym_break_statement, STATE 11814), (sym_continue_statement, STATE 11814),
    (sym_extension_definition, STATE 927), (sym_mlir_region, STATE 927),
    (sym_comptime_statement, STATE 927), (sym_if_statement, STATE 927),
    (sym_match_statement, STATE 927), (sym_for_statement, STATE 927),
    (sym_while_statement, STATE 927), (sym_try_statement, STATE 927),
    (sym_with_statement, STATE 927), (sym_function_definition, STATE 927),
    (sym_global_statement, STATE 11814), (sym_nonlocal_statement, STATE 11814),
    (sym_exec_statement, STATE 11814), (sym_type_alias_statement, STATE 11814),
    (sym_parameterized_alias_statement, STATE 11814), (sym_class_definition, STATE 927),
    (sym_trait_definition, STATE 927), (sym_decorated_definition, STATE 927),
    (sym_decorator, STATE 3670), (sym_block, STATE 4977), (sym_pattern, STATE 8086),
    (sym_tuple_pattern, STATE 8101), (sym_list_pattern, STATE 8101),
    (sym_list_splat_pattern, STATE 6819), (sym_as_pattern, STATE 7969),
    (sym_expression, STATE 9883), (sym_primary_expression, STATE 7326),
    (sym_comptime_expression, STATE 7017), (sym_transfer_expression, STATE 7017),
    (sym_not_operator, STATE 7969), (sym_boolean_operator, STATE 7969),
    (sym_binary_operator, STATE 7017), (sym_unary_operator, STATE 7017),
    (sym_comparison_operator, STATE 7969), (sym_lambda, STATE 7969),
    (sym_assignment, STATE 12425), (sym_augmented_assignment, STATE 12425),
    (sym_pattern_list, STATE 8578), (sym_yield, STATE 12425), (sym_attribute, STATE 6836),
    (sym_subscript, STATE 6838), (sym_call, STATE 6845), (sym_mlir_type, STATE 7017),
    (sym_list, STATE 7017), (sym_set, STATE 7017), (sym_tuple, STATE 7017),
    (sym_dictionary, STATE 7017), (sym_struct_literal, STATE 7017),
    (sym_list_comprehension, STATE 7017), (sym_dictionary_comprehension, STATE 7017),
    (sym_set_comprehension, STATE 7017), (sym_generator_expression, STATE 7017),
    (sym_parenthesized_expression, STATE 7017), (sym_conditional_expression, STATE 7969),
    (sym_concatenated_string, STATE 7017), (sym_string, STATE 6751), (sym_await, STATE 7017),
    (aux_sym_module_repeat1, STATE 927), (aux_sym_decorated_definition_repeat1, STATE 3670),
    (sym_identifier, ACTIONS 9), (anon_sym_import, ACTIONS 11), (anon_sym_from, ACTIONS 13),
    (anon_sym_LPAREN, ACTIONS 15), (anon_sym_STAR, ACTIONS 17), (anon_sym_print, ACTIONS 19),
    (anon_sym_comptime, ACTIONS 99), (anon_sym_assert, ACTIONS 23),
    (anon_sym___comptime_assert, ACTIONS 25), (anon_sym_return, ACTIONS 27),
    (anon_sym_del, ACTIONS 29), (anon_sym_raise, ACTIONS 31), (anon_sym_pass, ACTIONS 33),
    (anon_sym_break, ACTIONS 35), (anon_sym_continue, ACTIONS 37),
    (anon_sym___extension, ACTIONS 101), (anon_sym___mlir_region, ACTIONS 103),
    (anon_sym_if, ACTIONS 105), (anon_sym_match, ACTIONS 107), (anon_sym_async, ACTIONS 109),
    (anon_sym_for, ACTIONS 111), (anon_sym_while, ACTIONS 113), (anon_sym_try, ACTIONS 115),
    (anon_sym_with, ACTIONS 117), (anon_sym_def, ACTIONS 119), (anon_sym_fn, ACTIONS 119),
    (anon_sym_LBRACK, ACTIONS 59), (anon_sym_LBRACE, ACTIONS 61), (anon_sym_global, ACTIONS 63),
    (anon_sym_nonlocal, ACTIONS 65), (anon_sym_exec, ACTIONS 67), (anon_sym_type, ACTIONS 69),
    (anon_sym_class, ACTIONS 121), (anon_sym_struct, ACTIONS 121), (anon_sym_mut, ACTIONS 73),
    (anon_sym_out, ACTIONS 73), (anon_sym_trait, ACTIONS 123), (anon_sym_AT, ACTIONS 77),
    (anon_sym_DASH, ACTIONS 79), (anon_sym_PLUS, ACTIONS 79), (anon_sym_ref, ACTIONS 81),
    (anon_sym_var, ACTIONS 81), (anon_sym_not, ACTIONS 83), (anon_sym_TILDE, ACTIONS 79),
    (anon_sym_lambda, ACTIONS 85), (anon_sym_yield, ACTIONS 87), (sym_ellipsis, ACTIONS 89),
    (anon_sym___mlir_type, ACTIONS 91), (sym_integer, ACTIONS 93), (sym_float, ACTIONS 89),
    (anon_sym_await, ACTIONS 95), (sym_true, ACTIONS 93), (sym_false, ACTIONS 93),
    (sym_none, ACTIONS 93), (sym_comment, ACTIONS 3), (sym_line_continuation, ACTIONS 3),
    (sym__dedent, ACTIONS 125), (sym_string_start, ACTIONS 97)]"

definition parse_table_544 :: "(nat \<times> nat) list" where "parse_table_544 = [
    (sym__statement, STATE 927), (sym__simple_statements, STATE 927),
    (sym_import_statement, STATE 11814), (sym_future_import_statement, STATE 11814),
    (sym_import_from_statement, STATE 11814), (sym_print_statement, STATE 11814),
    (sym_assert_statement, STATE 11814), (sym_comptime_assert_statement, STATE 11814),
    (sym_expression_statement, STATE 11814), (sym_tuple_expression, STATE 12425),
    (sym_named_expression, STATE 7969), (sym__named_expression_lhs, STATE 12752),
    (sym_return_statement, STATE 11814), (sym_delete_statement, STATE 11814),
    (sym_raise_statement, STATE 11814), (sym_pass_statement, STATE 11814),
    (sym_break_statement, STATE 11814), (sym_continue_statement, STATE 11814),
    (sym_extension_definition, STATE 927), (sym_mlir_region, STATE 927),
    (sym_comptime_statement, STATE 927), (sym_if_statement, STATE 927),
    (sym_match_statement, STATE 927), (sym_for_statement, STATE 927),
    (sym_while_statement, STATE 927), (sym_try_statement, STATE 927),
    (sym_with_statement, STATE 927), (sym_function_definition, STATE 927),
    (sym_global_statement, STATE 11814), (sym_nonlocal_statement, STATE 11814),
    (sym_exec_statement, STATE 11814), (sym_type_alias_statement, STATE 11814),
    (sym_parameterized_alias_statement, STATE 11814), (sym_class_definition, STATE 927),
    (sym_trait_definition, STATE 927), (sym_decorated_definition, STATE 927),
    (sym_decorator, STATE 3670), (sym_block, STATE 4988), (sym_pattern, STATE 8086),
    (sym_tuple_pattern, STATE 8101), (sym_list_pattern, STATE 8101),
    (sym_list_splat_pattern, STATE 6819), (sym_as_pattern, STATE 7969),
    (sym_expression, STATE 9883), (sym_primary_expression, STATE 7326),
    (sym_comptime_expression, STATE 7017), (sym_transfer_expression, STATE 7017),
    (sym_not_operator, STATE 7969), (sym_boolean_operator, STATE 7969),
    (sym_binary_operator, STATE 7017), (sym_unary_operator, STATE 7017),
    (sym_comparison_operator, STATE 7969), (sym_lambda, STATE 7969),
    (sym_assignment, STATE 12425), (sym_augmented_assignment, STATE 12425),
    (sym_pattern_list, STATE 8578), (sym_yield, STATE 12425), (sym_attribute, STATE 6836),
    (sym_subscript, STATE 6838), (sym_call, STATE 6845), (sym_mlir_type, STATE 7017),
    (sym_list, STATE 7017), (sym_set, STATE 7017), (sym_tuple, STATE 7017),
    (sym_dictionary, STATE 7017), (sym_struct_literal, STATE 7017),
    (sym_list_comprehension, STATE 7017), (sym_dictionary_comprehension, STATE 7017),
    (sym_set_comprehension, STATE 7017), (sym_generator_expression, STATE 7017),
    (sym_parenthesized_expression, STATE 7017), (sym_conditional_expression, STATE 7969),
    (sym_concatenated_string, STATE 7017), (sym_string, STATE 6751), (sym_await, STATE 7017),
    (aux_sym_module_repeat1, STATE 927), (aux_sym_decorated_definition_repeat1, STATE 3670),
    (sym_identifier, ACTIONS 9), (anon_sym_import, ACTIONS 11), (anon_sym_from, ACTIONS 13),
    (anon_sym_LPAREN, ACTIONS 15), (anon_sym_STAR, ACTIONS 17), (anon_sym_print, ACTIONS 19),
    (anon_sym_comptime, ACTIONS 99), (anon_sym_assert, ACTIONS 23),
    (anon_sym___comptime_assert, ACTIONS 25), (anon_sym_return, ACTIONS 27),
    (anon_sym_del, ACTIONS 29), (anon_sym_raise, ACTIONS 31), (anon_sym_pass, ACTIONS 33),
    (anon_sym_break, ACTIONS 35), (anon_sym_continue, ACTIONS 37),
    (anon_sym___extension, ACTIONS 101), (anon_sym___mlir_region, ACTIONS 103),
    (anon_sym_if, ACTIONS 105), (anon_sym_match, ACTIONS 107), (anon_sym_async, ACTIONS 109),
    (anon_sym_for, ACTIONS 111), (anon_sym_while, ACTIONS 113), (anon_sym_try, ACTIONS 115),
    (anon_sym_with, ACTIONS 117), (anon_sym_def, ACTIONS 119), (anon_sym_fn, ACTIONS 119),
    (anon_sym_LBRACK, ACTIONS 59), (anon_sym_LBRACE, ACTIONS 61), (anon_sym_global, ACTIONS 63),
    (anon_sym_nonlocal, ACTIONS 65), (anon_sym_exec, ACTIONS 67), (anon_sym_type, ACTIONS 69),
    (anon_sym_class, ACTIONS 121), (anon_sym_struct, ACTIONS 121), (anon_sym_mut, ACTIONS 73),
    (anon_sym_out, ACTIONS 73), (anon_sym_trait, ACTIONS 123), (anon_sym_AT, ACTIONS 77),
    (anon_sym_DASH, ACTIONS 79), (anon_sym_PLUS, ACTIONS 79), (anon_sym_ref, ACTIONS 81),
    (anon_sym_var, ACTIONS 81), (anon_sym_not, ACTIONS 83), (anon_sym_TILDE, ACTIONS 79),
    (anon_sym_lambda, ACTIONS 85), (anon_sym_yield, ACTIONS 87), (sym_ellipsis, ACTIONS 89),
    (anon_sym___mlir_type, ACTIONS 91), (sym_integer, ACTIONS 93), (sym_float, ACTIONS 89),
    (anon_sym_await, ACTIONS 95), (sym_true, ACTIONS 93), (sym_false, ACTIONS 93),
    (sym_none, ACTIONS 93), (sym_comment, ACTIONS 3), (sym_line_continuation, ACTIONS 3),
    (sym__dedent, ACTIONS 125), (sym_string_start, ACTIONS 97)]"

definition parse_table_545 :: "(nat \<times> nat) list" where "parse_table_545 = [
    (sym__statement, STATE 927), (sym__simple_statements, STATE 927),
    (sym_import_statement, STATE 11814), (sym_future_import_statement, STATE 11814),
    (sym_import_from_statement, STATE 11814), (sym_print_statement, STATE 11814),
    (sym_assert_statement, STATE 11814), (sym_comptime_assert_statement, STATE 11814),
    (sym_expression_statement, STATE 11814), (sym_tuple_expression, STATE 12425),
    (sym_named_expression, STATE 7969), (sym__named_expression_lhs, STATE 12752),
    (sym_return_statement, STATE 11814), (sym_delete_statement, STATE 11814),
    (sym_raise_statement, STATE 11814), (sym_pass_statement, STATE 11814),
    (sym_break_statement, STATE 11814), (sym_continue_statement, STATE 11814),
    (sym_extension_definition, STATE 927), (sym_mlir_region, STATE 927),
    (sym_comptime_statement, STATE 927), (sym_if_statement, STATE 927),
    (sym_match_statement, STATE 927), (sym_for_statement, STATE 927),
    (sym_while_statement, STATE 927), (sym_try_statement, STATE 927),
    (sym_with_statement, STATE 927), (sym_function_definition, STATE 927),
    (sym_global_statement, STATE 11814), (sym_nonlocal_statement, STATE 11814),
    (sym_exec_statement, STATE 11814), (sym_type_alias_statement, STATE 11814),
    (sym_parameterized_alias_statement, STATE 11814), (sym_class_definition, STATE 927),
    (sym_trait_definition, STATE 927), (sym_decorated_definition, STATE 927),
    (sym_decorator, STATE 3670), (sym_block, STATE 5010), (sym_pattern, STATE 8086),
    (sym_tuple_pattern, STATE 8101), (sym_list_pattern, STATE 8101),
    (sym_list_splat_pattern, STATE 6819), (sym_as_pattern, STATE 7969),
    (sym_expression, STATE 9883), (sym_primary_expression, STATE 7326),
    (sym_comptime_expression, STATE 7017), (sym_transfer_expression, STATE 7017),
    (sym_not_operator, STATE 7969), (sym_boolean_operator, STATE 7969),
    (sym_binary_operator, STATE 7017), (sym_unary_operator, STATE 7017),
    (sym_comparison_operator, STATE 7969), (sym_lambda, STATE 7969),
    (sym_assignment, STATE 12425), (sym_augmented_assignment, STATE 12425),
    (sym_pattern_list, STATE 8578), (sym_yield, STATE 12425), (sym_attribute, STATE 6836),
    (sym_subscript, STATE 6838), (sym_call, STATE 6845), (sym_mlir_type, STATE 7017),
    (sym_list, STATE 7017), (sym_set, STATE 7017), (sym_tuple, STATE 7017),
    (sym_dictionary, STATE 7017), (sym_struct_literal, STATE 7017),
    (sym_list_comprehension, STATE 7017), (sym_dictionary_comprehension, STATE 7017),
    (sym_set_comprehension, STATE 7017), (sym_generator_expression, STATE 7017),
    (sym_parenthesized_expression, STATE 7017), (sym_conditional_expression, STATE 7969),
    (sym_concatenated_string, STATE 7017), (sym_string, STATE 6751), (sym_await, STATE 7017),
    (aux_sym_module_repeat1, STATE 927), (aux_sym_decorated_definition_repeat1, STATE 3670),
    (sym_identifier, ACTIONS 9), (anon_sym_import, ACTIONS 11), (anon_sym_from, ACTIONS 13),
    (anon_sym_LPAREN, ACTIONS 15), (anon_sym_STAR, ACTIONS 17), (anon_sym_print, ACTIONS 19),
    (anon_sym_comptime, ACTIONS 99), (anon_sym_assert, ACTIONS 23),
    (anon_sym___comptime_assert, ACTIONS 25), (anon_sym_return, ACTIONS 27),
    (anon_sym_del, ACTIONS 29), (anon_sym_raise, ACTIONS 31), (anon_sym_pass, ACTIONS 33),
    (anon_sym_break, ACTIONS 35), (anon_sym_continue, ACTIONS 37),
    (anon_sym___extension, ACTIONS 101), (anon_sym___mlir_region, ACTIONS 103),
    (anon_sym_if, ACTIONS 105), (anon_sym_match, ACTIONS 107), (anon_sym_async, ACTIONS 109),
    (anon_sym_for, ACTIONS 111), (anon_sym_while, ACTIONS 113), (anon_sym_try, ACTIONS 115),
    (anon_sym_with, ACTIONS 117), (anon_sym_def, ACTIONS 119), (anon_sym_fn, ACTIONS 119),
    (anon_sym_LBRACK, ACTIONS 59), (anon_sym_LBRACE, ACTIONS 61), (anon_sym_global, ACTIONS 63),
    (anon_sym_nonlocal, ACTIONS 65), (anon_sym_exec, ACTIONS 67), (anon_sym_type, ACTIONS 69),
    (anon_sym_class, ACTIONS 121), (anon_sym_struct, ACTIONS 121), (anon_sym_mut, ACTIONS 73),
    (anon_sym_out, ACTIONS 73), (anon_sym_trait, ACTIONS 123), (anon_sym_AT, ACTIONS 77),
    (anon_sym_DASH, ACTIONS 79), (anon_sym_PLUS, ACTIONS 79), (anon_sym_ref, ACTIONS 81),
    (anon_sym_var, ACTIONS 81), (anon_sym_not, ACTIONS 83), (anon_sym_TILDE, ACTIONS 79),
    (anon_sym_lambda, ACTIONS 85), (anon_sym_yield, ACTIONS 87), (sym_ellipsis, ACTIONS 89),
    (anon_sym___mlir_type, ACTIONS 91), (sym_integer, ACTIONS 93), (sym_float, ACTIONS 89),
    (anon_sym_await, ACTIONS 95), (sym_true, ACTIONS 93), (sym_false, ACTIONS 93),
    (sym_none, ACTIONS 93), (sym_comment, ACTIONS 3), (sym_line_continuation, ACTIONS 3),
    (sym__dedent, ACTIONS 125), (sym_string_start, ACTIONS 97)]"

definition parse_table_546 :: "(nat \<times> nat) list" where "parse_table_546 = [
    (sym__statement, STATE 927), (sym__simple_statements, STATE 927),
    (sym_import_statement, STATE 11814), (sym_future_import_statement, STATE 11814),
    (sym_import_from_statement, STATE 11814), (sym_print_statement, STATE 11814),
    (sym_assert_statement, STATE 11814), (sym_comptime_assert_statement, STATE 11814),
    (sym_expression_statement, STATE 11814), (sym_tuple_expression, STATE 12425),
    (sym_named_expression, STATE 7969), (sym__named_expression_lhs, STATE 12752),
    (sym_return_statement, STATE 11814), (sym_delete_statement, STATE 11814),
    (sym_raise_statement, STATE 11814), (sym_pass_statement, STATE 11814),
    (sym_break_statement, STATE 11814), (sym_continue_statement, STATE 11814),
    (sym_extension_definition, STATE 927), (sym_mlir_region, STATE 927),
    (sym_comptime_statement, STATE 927), (sym_if_statement, STATE 927),
    (sym_match_statement, STATE 927), (sym_for_statement, STATE 927),
    (sym_while_statement, STATE 927), (sym_try_statement, STATE 927),
    (sym_with_statement, STATE 927), (sym_function_definition, STATE 927),
    (sym_global_statement, STATE 11814), (sym_nonlocal_statement, STATE 11814),
    (sym_exec_statement, STATE 11814), (sym_type_alias_statement, STATE 11814),
    (sym_parameterized_alias_statement, STATE 11814), (sym_class_definition, STATE 927),
    (sym_trait_definition, STATE 927), (sym_decorated_definition, STATE 927),
    (sym_decorator, STATE 3670), (sym_block, STATE 5017), (sym_pattern, STATE 8086),
    (sym_tuple_pattern, STATE 8101), (sym_list_pattern, STATE 8101),
    (sym_list_splat_pattern, STATE 6819), (sym_as_pattern, STATE 7969),
    (sym_expression, STATE 9883), (sym_primary_expression, STATE 7326),
    (sym_comptime_expression, STATE 7017), (sym_transfer_expression, STATE 7017),
    (sym_not_operator, STATE 7969), (sym_boolean_operator, STATE 7969),
    (sym_binary_operator, STATE 7017), (sym_unary_operator, STATE 7017),
    (sym_comparison_operator, STATE 7969), (sym_lambda, STATE 7969),
    (sym_assignment, STATE 12425), (sym_augmented_assignment, STATE 12425),
    (sym_pattern_list, STATE 8578), (sym_yield, STATE 12425), (sym_attribute, STATE 6836),
    (sym_subscript, STATE 6838), (sym_call, STATE 6845), (sym_mlir_type, STATE 7017),
    (sym_list, STATE 7017), (sym_set, STATE 7017), (sym_tuple, STATE 7017),
    (sym_dictionary, STATE 7017), (sym_struct_literal, STATE 7017),
    (sym_list_comprehension, STATE 7017), (sym_dictionary_comprehension, STATE 7017),
    (sym_set_comprehension, STATE 7017), (sym_generator_expression, STATE 7017),
    (sym_parenthesized_expression, STATE 7017), (sym_conditional_expression, STATE 7969),
    (sym_concatenated_string, STATE 7017), (sym_string, STATE 6751), (sym_await, STATE 7017),
    (aux_sym_module_repeat1, STATE 927), (aux_sym_decorated_definition_repeat1, STATE 3670),
    (sym_identifier, ACTIONS 9), (anon_sym_import, ACTIONS 11), (anon_sym_from, ACTIONS 13),
    (anon_sym_LPAREN, ACTIONS 15), (anon_sym_STAR, ACTIONS 17), (anon_sym_print, ACTIONS 19),
    (anon_sym_comptime, ACTIONS 99), (anon_sym_assert, ACTIONS 23),
    (anon_sym___comptime_assert, ACTIONS 25), (anon_sym_return, ACTIONS 27),
    (anon_sym_del, ACTIONS 29), (anon_sym_raise, ACTIONS 31), (anon_sym_pass, ACTIONS 33),
    (anon_sym_break, ACTIONS 35), (anon_sym_continue, ACTIONS 37),
    (anon_sym___extension, ACTIONS 101), (anon_sym___mlir_region, ACTIONS 103),
    (anon_sym_if, ACTIONS 105), (anon_sym_match, ACTIONS 107), (anon_sym_async, ACTIONS 109),
    (anon_sym_for, ACTIONS 111), (anon_sym_while, ACTIONS 113), (anon_sym_try, ACTIONS 115),
    (anon_sym_with, ACTIONS 117), (anon_sym_def, ACTIONS 119), (anon_sym_fn, ACTIONS 119),
    (anon_sym_LBRACK, ACTIONS 59), (anon_sym_LBRACE, ACTIONS 61), (anon_sym_global, ACTIONS 63),
    (anon_sym_nonlocal, ACTIONS 65), (anon_sym_exec, ACTIONS 67), (anon_sym_type, ACTIONS 69),
    (anon_sym_class, ACTIONS 121), (anon_sym_struct, ACTIONS 121), (anon_sym_mut, ACTIONS 73),
    (anon_sym_out, ACTIONS 73), (anon_sym_trait, ACTIONS 123), (anon_sym_AT, ACTIONS 77),
    (anon_sym_DASH, ACTIONS 79), (anon_sym_PLUS, ACTIONS 79), (anon_sym_ref, ACTIONS 81),
    (anon_sym_var, ACTIONS 81), (anon_sym_not, ACTIONS 83), (anon_sym_TILDE, ACTIONS 79),
    (anon_sym_lambda, ACTIONS 85), (anon_sym_yield, ACTIONS 87), (sym_ellipsis, ACTIONS 89),
    (anon_sym___mlir_type, ACTIONS 91), (sym_integer, ACTIONS 93), (sym_float, ACTIONS 89),
    (anon_sym_await, ACTIONS 95), (sym_true, ACTIONS 93), (sym_false, ACTIONS 93),
    (sym_none, ACTIONS 93), (sym_comment, ACTIONS 3), (sym_line_continuation, ACTIONS 3),
    (sym__dedent, ACTIONS 125), (sym_string_start, ACTIONS 97)]"

definition parse_table_547 :: "(nat \<times> nat) list" where "parse_table_547 = [
    (sym__statement, STATE 927), (sym__simple_statements, STATE 927),
    (sym_import_statement, STATE 11814), (sym_future_import_statement, STATE 11814),
    (sym_import_from_statement, STATE 11814), (sym_print_statement, STATE 11814),
    (sym_assert_statement, STATE 11814), (sym_comptime_assert_statement, STATE 11814),
    (sym_expression_statement, STATE 11814), (sym_tuple_expression, STATE 12425),
    (sym_named_expression, STATE 7969), (sym__named_expression_lhs, STATE 12752),
    (sym_return_statement, STATE 11814), (sym_delete_statement, STATE 11814),
    (sym_raise_statement, STATE 11814), (sym_pass_statement, STATE 11814),
    (sym_break_statement, STATE 11814), (sym_continue_statement, STATE 11814),
    (sym_extension_definition, STATE 927), (sym_mlir_region, STATE 927),
    (sym_comptime_statement, STATE 927), (sym_if_statement, STATE 927),
    (sym_match_statement, STATE 927), (sym_for_statement, STATE 927),
    (sym_while_statement, STATE 927), (sym_try_statement, STATE 927),
    (sym_with_statement, STATE 927), (sym_function_definition, STATE 927),
    (sym_global_statement, STATE 11814), (sym_nonlocal_statement, STATE 11814),
    (sym_exec_statement, STATE 11814), (sym_type_alias_statement, STATE 11814),
    (sym_parameterized_alias_statement, STATE 11814), (sym_class_definition, STATE 927),
    (sym_trait_definition, STATE 927), (sym_decorated_definition, STATE 927),
    (sym_decorator, STATE 3670), (sym_block, STATE 5029), (sym_pattern, STATE 8086),
    (sym_tuple_pattern, STATE 8101), (sym_list_pattern, STATE 8101),
    (sym_list_splat_pattern, STATE 6819), (sym_as_pattern, STATE 7969),
    (sym_expression, STATE 9883), (sym_primary_expression, STATE 7326),
    (sym_comptime_expression, STATE 7017), (sym_transfer_expression, STATE 7017),
    (sym_not_operator, STATE 7969), (sym_boolean_operator, STATE 7969),
    (sym_binary_operator, STATE 7017), (sym_unary_operator, STATE 7017),
    (sym_comparison_operator, STATE 7969), (sym_lambda, STATE 7969),
    (sym_assignment, STATE 12425), (sym_augmented_assignment, STATE 12425),
    (sym_pattern_list, STATE 8578), (sym_yield, STATE 12425), (sym_attribute, STATE 6836),
    (sym_subscript, STATE 6838), (sym_call, STATE 6845), (sym_mlir_type, STATE 7017),
    (sym_list, STATE 7017), (sym_set, STATE 7017), (sym_tuple, STATE 7017),
    (sym_dictionary, STATE 7017), (sym_struct_literal, STATE 7017),
    (sym_list_comprehension, STATE 7017), (sym_dictionary_comprehension, STATE 7017),
    (sym_set_comprehension, STATE 7017), (sym_generator_expression, STATE 7017),
    (sym_parenthesized_expression, STATE 7017), (sym_conditional_expression, STATE 7969),
    (sym_concatenated_string, STATE 7017), (sym_string, STATE 6751), (sym_await, STATE 7017),
    (aux_sym_module_repeat1, STATE 927), (aux_sym_decorated_definition_repeat1, STATE 3670),
    (sym_identifier, ACTIONS 9), (anon_sym_import, ACTIONS 11), (anon_sym_from, ACTIONS 13),
    (anon_sym_LPAREN, ACTIONS 15), (anon_sym_STAR, ACTIONS 17), (anon_sym_print, ACTIONS 19),
    (anon_sym_comptime, ACTIONS 99), (anon_sym_assert, ACTIONS 23),
    (anon_sym___comptime_assert, ACTIONS 25), (anon_sym_return, ACTIONS 27),
    (anon_sym_del, ACTIONS 29), (anon_sym_raise, ACTIONS 31), (anon_sym_pass, ACTIONS 33),
    (anon_sym_break, ACTIONS 35), (anon_sym_continue, ACTIONS 37),
    (anon_sym___extension, ACTIONS 101), (anon_sym___mlir_region, ACTIONS 103),
    (anon_sym_if, ACTIONS 105), (anon_sym_match, ACTIONS 107), (anon_sym_async, ACTIONS 109),
    (anon_sym_for, ACTIONS 111), (anon_sym_while, ACTIONS 113), (anon_sym_try, ACTIONS 115),
    (anon_sym_with, ACTIONS 117), (anon_sym_def, ACTIONS 119), (anon_sym_fn, ACTIONS 119),
    (anon_sym_LBRACK, ACTIONS 59), (anon_sym_LBRACE, ACTIONS 61), (anon_sym_global, ACTIONS 63),
    (anon_sym_nonlocal, ACTIONS 65), (anon_sym_exec, ACTIONS 67), (anon_sym_type, ACTIONS 69),
    (anon_sym_class, ACTIONS 121), (anon_sym_struct, ACTIONS 121), (anon_sym_mut, ACTIONS 73),
    (anon_sym_out, ACTIONS 73), (anon_sym_trait, ACTIONS 123), (anon_sym_AT, ACTIONS 77),
    (anon_sym_DASH, ACTIONS 79), (anon_sym_PLUS, ACTIONS 79), (anon_sym_ref, ACTIONS 81),
    (anon_sym_var, ACTIONS 81), (anon_sym_not, ACTIONS 83), (anon_sym_TILDE, ACTIONS 79),
    (anon_sym_lambda, ACTIONS 85), (anon_sym_yield, ACTIONS 87), (sym_ellipsis, ACTIONS 89),
    (anon_sym___mlir_type, ACTIONS 91), (sym_integer, ACTIONS 93), (sym_float, ACTIONS 89),
    (anon_sym_await, ACTIONS 95), (sym_true, ACTIONS 93), (sym_false, ACTIONS 93),
    (sym_none, ACTIONS 93), (sym_comment, ACTIONS 3), (sym_line_continuation, ACTIONS 3),
    (sym__dedent, ACTIONS 125), (sym_string_start, ACTIONS 97)]"

definition parse_table_548 :: "(nat \<times> nat) list" where "parse_table_548 = [
    (sym__statement, STATE 927), (sym__simple_statements, STATE 927),
    (sym_import_statement, STATE 11814), (sym_future_import_statement, STATE 11814),
    (sym_import_from_statement, STATE 11814), (sym_print_statement, STATE 11814),
    (sym_assert_statement, STATE 11814), (sym_comptime_assert_statement, STATE 11814),
    (sym_expression_statement, STATE 11814), (sym_tuple_expression, STATE 12425),
    (sym_named_expression, STATE 7969), (sym__named_expression_lhs, STATE 12752),
    (sym_return_statement, STATE 11814), (sym_delete_statement, STATE 11814),
    (sym_raise_statement, STATE 11814), (sym_pass_statement, STATE 11814),
    (sym_break_statement, STATE 11814), (sym_continue_statement, STATE 11814),
    (sym_extension_definition, STATE 927), (sym_mlir_region, STATE 927),
    (sym_comptime_statement, STATE 927), (sym_if_statement, STATE 927),
    (sym_match_statement, STATE 927), (sym_for_statement, STATE 927),
    (sym_while_statement, STATE 927), (sym_try_statement, STATE 927),
    (sym_with_statement, STATE 927), (sym_function_definition, STATE 927),
    (sym_global_statement, STATE 11814), (sym_nonlocal_statement, STATE 11814),
    (sym_exec_statement, STATE 11814), (sym_type_alias_statement, STATE 11814),
    (sym_parameterized_alias_statement, STATE 11814), (sym_class_definition, STATE 927),
    (sym_trait_definition, STATE 927), (sym_decorated_definition, STATE 927),
    (sym_decorator, STATE 3670), (sym_block, STATE 5033), (sym_pattern, STATE 8086),
    (sym_tuple_pattern, STATE 8101), (sym_list_pattern, STATE 8101),
    (sym_list_splat_pattern, STATE 6819), (sym_as_pattern, STATE 7969),
    (sym_expression, STATE 9883), (sym_primary_expression, STATE 7326),
    (sym_comptime_expression, STATE 7017), (sym_transfer_expression, STATE 7017),
    (sym_not_operator, STATE 7969), (sym_boolean_operator, STATE 7969),
    (sym_binary_operator, STATE 7017), (sym_unary_operator, STATE 7017),
    (sym_comparison_operator, STATE 7969), (sym_lambda, STATE 7969),
    (sym_assignment, STATE 12425), (sym_augmented_assignment, STATE 12425),
    (sym_pattern_list, STATE 8578), (sym_yield, STATE 12425), (sym_attribute, STATE 6836),
    (sym_subscript, STATE 6838), (sym_call, STATE 6845), (sym_mlir_type, STATE 7017),
    (sym_list, STATE 7017), (sym_set, STATE 7017), (sym_tuple, STATE 7017),
    (sym_dictionary, STATE 7017), (sym_struct_literal, STATE 7017),
    (sym_list_comprehension, STATE 7017), (sym_dictionary_comprehension, STATE 7017),
    (sym_set_comprehension, STATE 7017), (sym_generator_expression, STATE 7017),
    (sym_parenthesized_expression, STATE 7017), (sym_conditional_expression, STATE 7969),
    (sym_concatenated_string, STATE 7017), (sym_string, STATE 6751), (sym_await, STATE 7017),
    (aux_sym_module_repeat1, STATE 927), (aux_sym_decorated_definition_repeat1, STATE 3670),
    (sym_identifier, ACTIONS 9), (anon_sym_import, ACTIONS 11), (anon_sym_from, ACTIONS 13),
    (anon_sym_LPAREN, ACTIONS 15), (anon_sym_STAR, ACTIONS 17), (anon_sym_print, ACTIONS 19),
    (anon_sym_comptime, ACTIONS 99), (anon_sym_assert, ACTIONS 23),
    (anon_sym___comptime_assert, ACTIONS 25), (anon_sym_return, ACTIONS 27),
    (anon_sym_del, ACTIONS 29), (anon_sym_raise, ACTIONS 31), (anon_sym_pass, ACTIONS 33),
    (anon_sym_break, ACTIONS 35), (anon_sym_continue, ACTIONS 37),
    (anon_sym___extension, ACTIONS 101), (anon_sym___mlir_region, ACTIONS 103),
    (anon_sym_if, ACTIONS 105), (anon_sym_match, ACTIONS 107), (anon_sym_async, ACTIONS 109),
    (anon_sym_for, ACTIONS 111), (anon_sym_while, ACTIONS 113), (anon_sym_try, ACTIONS 115),
    (anon_sym_with, ACTIONS 117), (anon_sym_def, ACTIONS 119), (anon_sym_fn, ACTIONS 119),
    (anon_sym_LBRACK, ACTIONS 59), (anon_sym_LBRACE, ACTIONS 61), (anon_sym_global, ACTIONS 63),
    (anon_sym_nonlocal, ACTIONS 65), (anon_sym_exec, ACTIONS 67), (anon_sym_type, ACTIONS 69),
    (anon_sym_class, ACTIONS 121), (anon_sym_struct, ACTIONS 121), (anon_sym_mut, ACTIONS 73),
    (anon_sym_out, ACTIONS 73), (anon_sym_trait, ACTIONS 123), (anon_sym_AT, ACTIONS 77),
    (anon_sym_DASH, ACTIONS 79), (anon_sym_PLUS, ACTIONS 79), (anon_sym_ref, ACTIONS 81),
    (anon_sym_var, ACTIONS 81), (anon_sym_not, ACTIONS 83), (anon_sym_TILDE, ACTIONS 79),
    (anon_sym_lambda, ACTIONS 85), (anon_sym_yield, ACTIONS 87), (sym_ellipsis, ACTIONS 89),
    (anon_sym___mlir_type, ACTIONS 91), (sym_integer, ACTIONS 93), (sym_float, ACTIONS 89),
    (anon_sym_await, ACTIONS 95), (sym_true, ACTIONS 93), (sym_false, ACTIONS 93),
    (sym_none, ACTIONS 93), (sym_comment, ACTIONS 3), (sym_line_continuation, ACTIONS 3),
    (sym__dedent, ACTIONS 125), (sym_string_start, ACTIONS 97)]"

definition parse_table_549 :: "(nat \<times> nat) list" where "parse_table_549 = [
    (sym__statement, STATE 927), (sym__simple_statements, STATE 927),
    (sym_import_statement, STATE 11814), (sym_future_import_statement, STATE 11814),
    (sym_import_from_statement, STATE 11814), (sym_print_statement, STATE 11814),
    (sym_assert_statement, STATE 11814), (sym_comptime_assert_statement, STATE 11814),
    (sym_expression_statement, STATE 11814), (sym_tuple_expression, STATE 12425),
    (sym_named_expression, STATE 7969), (sym__named_expression_lhs, STATE 12752),
    (sym_return_statement, STATE 11814), (sym_delete_statement, STATE 11814),
    (sym_raise_statement, STATE 11814), (sym_pass_statement, STATE 11814),
    (sym_break_statement, STATE 11814), (sym_continue_statement, STATE 11814),
    (sym_extension_definition, STATE 927), (sym_mlir_region, STATE 927),
    (sym_comptime_statement, STATE 927), (sym_if_statement, STATE 927),
    (sym_match_statement, STATE 927), (sym_for_statement, STATE 927),
    (sym_while_statement, STATE 927), (sym_try_statement, STATE 927),
    (sym_with_statement, STATE 927), (sym_function_definition, STATE 927),
    (sym_global_statement, STATE 11814), (sym_nonlocal_statement, STATE 11814),
    (sym_exec_statement, STATE 11814), (sym_type_alias_statement, STATE 11814),
    (sym_parameterized_alias_statement, STATE 11814), (sym_class_definition, STATE 927),
    (sym_trait_definition, STATE 927), (sym_decorated_definition, STATE 927),
    (sym_decorator, STATE 3670), (sym_block, STATE 5174), (sym_pattern, STATE 8086),
    (sym_tuple_pattern, STATE 8101), (sym_list_pattern, STATE 8101),
    (sym_list_splat_pattern, STATE 6819), (sym_as_pattern, STATE 7969),
    (sym_expression, STATE 9883), (sym_primary_expression, STATE 7326),
    (sym_comptime_expression, STATE 7017), (sym_transfer_expression, STATE 7017),
    (sym_not_operator, STATE 7969), (sym_boolean_operator, STATE 7969),
    (sym_binary_operator, STATE 7017), (sym_unary_operator, STATE 7017),
    (sym_comparison_operator, STATE 7969), (sym_lambda, STATE 7969),
    (sym_assignment, STATE 12425), (sym_augmented_assignment, STATE 12425),
    (sym_pattern_list, STATE 8578), (sym_yield, STATE 12425), (sym_attribute, STATE 6836),
    (sym_subscript, STATE 6838), (sym_call, STATE 6845), (sym_mlir_type, STATE 7017),
    (sym_list, STATE 7017), (sym_set, STATE 7017), (sym_tuple, STATE 7017),
    (sym_dictionary, STATE 7017), (sym_struct_literal, STATE 7017),
    (sym_list_comprehension, STATE 7017), (sym_dictionary_comprehension, STATE 7017),
    (sym_set_comprehension, STATE 7017), (sym_generator_expression, STATE 7017),
    (sym_parenthesized_expression, STATE 7017), (sym_conditional_expression, STATE 7969),
    (sym_concatenated_string, STATE 7017), (sym_string, STATE 6751), (sym_await, STATE 7017),
    (aux_sym_module_repeat1, STATE 927), (aux_sym_decorated_definition_repeat1, STATE 3670),
    (sym_identifier, ACTIONS 9), (anon_sym_import, ACTIONS 11), (anon_sym_from, ACTIONS 13),
    (anon_sym_LPAREN, ACTIONS 15), (anon_sym_STAR, ACTIONS 17), (anon_sym_print, ACTIONS 19),
    (anon_sym_comptime, ACTIONS 99), (anon_sym_assert, ACTIONS 23),
    (anon_sym___comptime_assert, ACTIONS 25), (anon_sym_return, ACTIONS 27),
    (anon_sym_del, ACTIONS 29), (anon_sym_raise, ACTIONS 31), (anon_sym_pass, ACTIONS 33),
    (anon_sym_break, ACTIONS 35), (anon_sym_continue, ACTIONS 37),
    (anon_sym___extension, ACTIONS 101), (anon_sym___mlir_region, ACTIONS 103),
    (anon_sym_if, ACTIONS 105), (anon_sym_match, ACTIONS 107), (anon_sym_async, ACTIONS 109),
    (anon_sym_for, ACTIONS 111), (anon_sym_while, ACTIONS 113), (anon_sym_try, ACTIONS 115),
    (anon_sym_with, ACTIONS 117), (anon_sym_def, ACTIONS 119), (anon_sym_fn, ACTIONS 119),
    (anon_sym_LBRACK, ACTIONS 59), (anon_sym_LBRACE, ACTIONS 61), (anon_sym_global, ACTIONS 63),
    (anon_sym_nonlocal, ACTIONS 65), (anon_sym_exec, ACTIONS 67), (anon_sym_type, ACTIONS 69),
    (anon_sym_class, ACTIONS 121), (anon_sym_struct, ACTIONS 121), (anon_sym_mut, ACTIONS 73),
    (anon_sym_out, ACTIONS 73), (anon_sym_trait, ACTIONS 123), (anon_sym_AT, ACTIONS 77),
    (anon_sym_DASH, ACTIONS 79), (anon_sym_PLUS, ACTIONS 79), (anon_sym_ref, ACTIONS 81),
    (anon_sym_var, ACTIONS 81), (anon_sym_not, ACTIONS 83), (anon_sym_TILDE, ACTIONS 79),
    (anon_sym_lambda, ACTIONS 85), (anon_sym_yield, ACTIONS 87), (sym_ellipsis, ACTIONS 89),
    (anon_sym___mlir_type, ACTIONS 91), (sym_integer, ACTIONS 93), (sym_float, ACTIONS 89),
    (anon_sym_await, ACTIONS 95), (sym_true, ACTIONS 93), (sym_false, ACTIONS 93),
    (sym_none, ACTIONS 93), (sym_comment, ACTIONS 3), (sym_line_continuation, ACTIONS 3),
    (sym__dedent, ACTIONS 125), (sym_string_start, ACTIONS 97)]"

definition parse_table_550 :: "(nat \<times> nat) list" where "parse_table_550 = [
    (sym__statement, STATE 927), (sym__simple_statements, STATE 927),
    (sym_import_statement, STATE 11814), (sym_future_import_statement, STATE 11814),
    (sym_import_from_statement, STATE 11814), (sym_print_statement, STATE 11814),
    (sym_assert_statement, STATE 11814), (sym_comptime_assert_statement, STATE 11814),
    (sym_expression_statement, STATE 11814), (sym_tuple_expression, STATE 12425),
    (sym_named_expression, STATE 7969), (sym__named_expression_lhs, STATE 12752),
    (sym_return_statement, STATE 11814), (sym_delete_statement, STATE 11814),
    (sym_raise_statement, STATE 11814), (sym_pass_statement, STATE 11814),
    (sym_break_statement, STATE 11814), (sym_continue_statement, STATE 11814),
    (sym_extension_definition, STATE 927), (sym_mlir_region, STATE 927),
    (sym_comptime_statement, STATE 927), (sym_if_statement, STATE 927),
    (sym_match_statement, STATE 927), (sym_for_statement, STATE 927),
    (sym_while_statement, STATE 927), (sym_try_statement, STATE 927),
    (sym_with_statement, STATE 927), (sym_function_definition, STATE 927),
    (sym_global_statement, STATE 11814), (sym_nonlocal_statement, STATE 11814),
    (sym_exec_statement, STATE 11814), (sym_type_alias_statement, STATE 11814),
    (sym_parameterized_alias_statement, STATE 11814), (sym_class_definition, STATE 927),
    (sym_trait_definition, STATE 927), (sym_decorated_definition, STATE 927),
    (sym_decorator, STATE 3670), (sym_block, STATE 5189), (sym_pattern, STATE 8086),
    (sym_tuple_pattern, STATE 8101), (sym_list_pattern, STATE 8101),
    (sym_list_splat_pattern, STATE 6819), (sym_as_pattern, STATE 7969),
    (sym_expression, STATE 9883), (sym_primary_expression, STATE 7326),
    (sym_comptime_expression, STATE 7017), (sym_transfer_expression, STATE 7017),
    (sym_not_operator, STATE 7969), (sym_boolean_operator, STATE 7969),
    (sym_binary_operator, STATE 7017), (sym_unary_operator, STATE 7017),
    (sym_comparison_operator, STATE 7969), (sym_lambda, STATE 7969),
    (sym_assignment, STATE 12425), (sym_augmented_assignment, STATE 12425),
    (sym_pattern_list, STATE 8578), (sym_yield, STATE 12425), (sym_attribute, STATE 6836),
    (sym_subscript, STATE 6838), (sym_call, STATE 6845), (sym_mlir_type, STATE 7017),
    (sym_list, STATE 7017), (sym_set, STATE 7017), (sym_tuple, STATE 7017),
    (sym_dictionary, STATE 7017), (sym_struct_literal, STATE 7017),
    (sym_list_comprehension, STATE 7017), (sym_dictionary_comprehension, STATE 7017),
    (sym_set_comprehension, STATE 7017), (sym_generator_expression, STATE 7017),
    (sym_parenthesized_expression, STATE 7017), (sym_conditional_expression, STATE 7969),
    (sym_concatenated_string, STATE 7017), (sym_string, STATE 6751), (sym_await, STATE 7017),
    (aux_sym_module_repeat1, STATE 927), (aux_sym_decorated_definition_repeat1, STATE 3670),
    (sym_identifier, ACTIONS 9), (anon_sym_import, ACTIONS 11), (anon_sym_from, ACTIONS 13),
    (anon_sym_LPAREN, ACTIONS 15), (anon_sym_STAR, ACTIONS 17), (anon_sym_print, ACTIONS 19),
    (anon_sym_comptime, ACTIONS 99), (anon_sym_assert, ACTIONS 23),
    (anon_sym___comptime_assert, ACTIONS 25), (anon_sym_return, ACTIONS 27),
    (anon_sym_del, ACTIONS 29), (anon_sym_raise, ACTIONS 31), (anon_sym_pass, ACTIONS 33),
    (anon_sym_break, ACTIONS 35), (anon_sym_continue, ACTIONS 37),
    (anon_sym___extension, ACTIONS 101), (anon_sym___mlir_region, ACTIONS 103),
    (anon_sym_if, ACTIONS 105), (anon_sym_match, ACTIONS 107), (anon_sym_async, ACTIONS 109),
    (anon_sym_for, ACTIONS 111), (anon_sym_while, ACTIONS 113), (anon_sym_try, ACTIONS 115),
    (anon_sym_with, ACTIONS 117), (anon_sym_def, ACTIONS 119), (anon_sym_fn, ACTIONS 119),
    (anon_sym_LBRACK, ACTIONS 59), (anon_sym_LBRACE, ACTIONS 61), (anon_sym_global, ACTIONS 63),
    (anon_sym_nonlocal, ACTIONS 65), (anon_sym_exec, ACTIONS 67), (anon_sym_type, ACTIONS 69),
    (anon_sym_class, ACTIONS 121), (anon_sym_struct, ACTIONS 121), (anon_sym_mut, ACTIONS 73),
    (anon_sym_out, ACTIONS 73), (anon_sym_trait, ACTIONS 123), (anon_sym_AT, ACTIONS 77),
    (anon_sym_DASH, ACTIONS 79), (anon_sym_PLUS, ACTIONS 79), (anon_sym_ref, ACTIONS 81),
    (anon_sym_var, ACTIONS 81), (anon_sym_not, ACTIONS 83), (anon_sym_TILDE, ACTIONS 79),
    (anon_sym_lambda, ACTIONS 85), (anon_sym_yield, ACTIONS 87), (sym_ellipsis, ACTIONS 89),
    (anon_sym___mlir_type, ACTIONS 91), (sym_integer, ACTIONS 93), (sym_float, ACTIONS 89),
    (anon_sym_await, ACTIONS 95), (sym_true, ACTIONS 93), (sym_false, ACTIONS 93),
    (sym_none, ACTIONS 93), (sym_comment, ACTIONS 3), (sym_line_continuation, ACTIONS 3),
    (sym__dedent, ACTIONS 125), (sym_string_start, ACTIONS 97)]"

definition parse_table_551 :: "(nat \<times> nat) list" where "parse_table_551 = [
    (sym__statement, STATE 927), (sym__simple_statements, STATE 927),
    (sym_import_statement, STATE 11814), (sym_future_import_statement, STATE 11814),
    (sym_import_from_statement, STATE 11814), (sym_print_statement, STATE 11814),
    (sym_assert_statement, STATE 11814), (sym_comptime_assert_statement, STATE 11814),
    (sym_expression_statement, STATE 11814), (sym_tuple_expression, STATE 12425),
    (sym_named_expression, STATE 7969), (sym__named_expression_lhs, STATE 12752),
    (sym_return_statement, STATE 11814), (sym_delete_statement, STATE 11814),
    (sym_raise_statement, STATE 11814), (sym_pass_statement, STATE 11814),
    (sym_break_statement, STATE 11814), (sym_continue_statement, STATE 11814),
    (sym_extension_definition, STATE 927), (sym_mlir_region, STATE 927),
    (sym_comptime_statement, STATE 927), (sym_if_statement, STATE 927),
    (sym_match_statement, STATE 927), (sym_for_statement, STATE 927),
    (sym_while_statement, STATE 927), (sym_try_statement, STATE 927),
    (sym_with_statement, STATE 927), (sym_function_definition, STATE 927),
    (sym_global_statement, STATE 11814), (sym_nonlocal_statement, STATE 11814),
    (sym_exec_statement, STATE 11814), (sym_type_alias_statement, STATE 11814),
    (sym_parameterized_alias_statement, STATE 11814), (sym_class_definition, STATE 927),
    (sym_trait_definition, STATE 927), (sym_decorated_definition, STATE 927),
    (sym_decorator, STATE 3670), (sym_block, STATE 5193), (sym_pattern, STATE 8086),
    (sym_tuple_pattern, STATE 8101), (sym_list_pattern, STATE 8101),
    (sym_list_splat_pattern, STATE 6819), (sym_as_pattern, STATE 7969),
    (sym_expression, STATE 9883), (sym_primary_expression, STATE 7326),
    (sym_comptime_expression, STATE 7017), (sym_transfer_expression, STATE 7017),
    (sym_not_operator, STATE 7969), (sym_boolean_operator, STATE 7969),
    (sym_binary_operator, STATE 7017), (sym_unary_operator, STATE 7017),
    (sym_comparison_operator, STATE 7969), (sym_lambda, STATE 7969),
    (sym_assignment, STATE 12425), (sym_augmented_assignment, STATE 12425),
    (sym_pattern_list, STATE 8578), (sym_yield, STATE 12425), (sym_attribute, STATE 6836),
    (sym_subscript, STATE 6838), (sym_call, STATE 6845), (sym_mlir_type, STATE 7017),
    (sym_list, STATE 7017), (sym_set, STATE 7017), (sym_tuple, STATE 7017),
    (sym_dictionary, STATE 7017), (sym_struct_literal, STATE 7017),
    (sym_list_comprehension, STATE 7017), (sym_dictionary_comprehension, STATE 7017),
    (sym_set_comprehension, STATE 7017), (sym_generator_expression, STATE 7017),
    (sym_parenthesized_expression, STATE 7017), (sym_conditional_expression, STATE 7969),
    (sym_concatenated_string, STATE 7017), (sym_string, STATE 6751), (sym_await, STATE 7017),
    (aux_sym_module_repeat1, STATE 927), (aux_sym_decorated_definition_repeat1, STATE 3670),
    (sym_identifier, ACTIONS 9), (anon_sym_import, ACTIONS 11), (anon_sym_from, ACTIONS 13),
    (anon_sym_LPAREN, ACTIONS 15), (anon_sym_STAR, ACTIONS 17), (anon_sym_print, ACTIONS 19),
    (anon_sym_comptime, ACTIONS 99), (anon_sym_assert, ACTIONS 23),
    (anon_sym___comptime_assert, ACTIONS 25), (anon_sym_return, ACTIONS 27),
    (anon_sym_del, ACTIONS 29), (anon_sym_raise, ACTIONS 31), (anon_sym_pass, ACTIONS 33),
    (anon_sym_break, ACTIONS 35), (anon_sym_continue, ACTIONS 37),
    (anon_sym___extension, ACTIONS 101), (anon_sym___mlir_region, ACTIONS 103),
    (anon_sym_if, ACTIONS 105), (anon_sym_match, ACTIONS 107), (anon_sym_async, ACTIONS 109),
    (anon_sym_for, ACTIONS 111), (anon_sym_while, ACTIONS 113), (anon_sym_try, ACTIONS 115),
    (anon_sym_with, ACTIONS 117), (anon_sym_def, ACTIONS 119), (anon_sym_fn, ACTIONS 119),
    (anon_sym_LBRACK, ACTIONS 59), (anon_sym_LBRACE, ACTIONS 61), (anon_sym_global, ACTIONS 63),
    (anon_sym_nonlocal, ACTIONS 65), (anon_sym_exec, ACTIONS 67), (anon_sym_type, ACTIONS 69),
    (anon_sym_class, ACTIONS 121), (anon_sym_struct, ACTIONS 121), (anon_sym_mut, ACTIONS 73),
    (anon_sym_out, ACTIONS 73), (anon_sym_trait, ACTIONS 123), (anon_sym_AT, ACTIONS 77),
    (anon_sym_DASH, ACTIONS 79), (anon_sym_PLUS, ACTIONS 79), (anon_sym_ref, ACTIONS 81),
    (anon_sym_var, ACTIONS 81), (anon_sym_not, ACTIONS 83), (anon_sym_TILDE, ACTIONS 79),
    (anon_sym_lambda, ACTIONS 85), (anon_sym_yield, ACTIONS 87), (sym_ellipsis, ACTIONS 89),
    (anon_sym___mlir_type, ACTIONS 91), (sym_integer, ACTIONS 93), (sym_float, ACTIONS 89),
    (anon_sym_await, ACTIONS 95), (sym_true, ACTIONS 93), (sym_false, ACTIONS 93),
    (sym_none, ACTIONS 93), (sym_comment, ACTIONS 3), (sym_line_continuation, ACTIONS 3),
    (sym__dedent, ACTIONS 125), (sym_string_start, ACTIONS 97)]"

definition parse_table_552 :: "(nat \<times> nat) list" where "parse_table_552 = [
    (sym__statement, STATE 927), (sym__simple_statements, STATE 927),
    (sym_import_statement, STATE 11814), (sym_future_import_statement, STATE 11814),
    (sym_import_from_statement, STATE 11814), (sym_print_statement, STATE 11814),
    (sym_assert_statement, STATE 11814), (sym_comptime_assert_statement, STATE 11814),
    (sym_expression_statement, STATE 11814), (sym_tuple_expression, STATE 12425),
    (sym_named_expression, STATE 7969), (sym__named_expression_lhs, STATE 12752),
    (sym_return_statement, STATE 11814), (sym_delete_statement, STATE 11814),
    (sym_raise_statement, STATE 11814), (sym_pass_statement, STATE 11814),
    (sym_break_statement, STATE 11814), (sym_continue_statement, STATE 11814),
    (sym_extension_definition, STATE 927), (sym_mlir_region, STATE 927),
    (sym_comptime_statement, STATE 927), (sym_if_statement, STATE 927),
    (sym_match_statement, STATE 927), (sym_for_statement, STATE 927),
    (sym_while_statement, STATE 927), (sym_try_statement, STATE 927),
    (sym_with_statement, STATE 927), (sym_function_definition, STATE 927),
    (sym_global_statement, STATE 11814), (sym_nonlocal_statement, STATE 11814),
    (sym_exec_statement, STATE 11814), (sym_type_alias_statement, STATE 11814),
    (sym_parameterized_alias_statement, STATE 11814), (sym_class_definition, STATE 927),
    (sym_trait_definition, STATE 927), (sym_decorated_definition, STATE 927),
    (sym_decorator, STATE 3670), (sym_block, STATE 5198), (sym_pattern, STATE 8086),
    (sym_tuple_pattern, STATE 8101), (sym_list_pattern, STATE 8101),
    (sym_list_splat_pattern, STATE 6819), (sym_as_pattern, STATE 7969),
    (sym_expression, STATE 9883), (sym_primary_expression, STATE 7326),
    (sym_comptime_expression, STATE 7017), (sym_transfer_expression, STATE 7017),
    (sym_not_operator, STATE 7969), (sym_boolean_operator, STATE 7969),
    (sym_binary_operator, STATE 7017), (sym_unary_operator, STATE 7017),
    (sym_comparison_operator, STATE 7969), (sym_lambda, STATE 7969),
    (sym_assignment, STATE 12425), (sym_augmented_assignment, STATE 12425),
    (sym_pattern_list, STATE 8578), (sym_yield, STATE 12425), (sym_attribute, STATE 6836),
    (sym_subscript, STATE 6838), (sym_call, STATE 6845), (sym_mlir_type, STATE 7017),
    (sym_list, STATE 7017), (sym_set, STATE 7017), (sym_tuple, STATE 7017),
    (sym_dictionary, STATE 7017), (sym_struct_literal, STATE 7017),
    (sym_list_comprehension, STATE 7017), (sym_dictionary_comprehension, STATE 7017),
    (sym_set_comprehension, STATE 7017), (sym_generator_expression, STATE 7017),
    (sym_parenthesized_expression, STATE 7017), (sym_conditional_expression, STATE 7969),
    (sym_concatenated_string, STATE 7017), (sym_string, STATE 6751), (sym_await, STATE 7017),
    (aux_sym_module_repeat1, STATE 927), (aux_sym_decorated_definition_repeat1, STATE 3670),
    (sym_identifier, ACTIONS 9), (anon_sym_import, ACTIONS 11), (anon_sym_from, ACTIONS 13),
    (anon_sym_LPAREN, ACTIONS 15), (anon_sym_STAR, ACTIONS 17), (anon_sym_print, ACTIONS 19),
    (anon_sym_comptime, ACTIONS 99), (anon_sym_assert, ACTIONS 23),
    (anon_sym___comptime_assert, ACTIONS 25), (anon_sym_return, ACTIONS 27),
    (anon_sym_del, ACTIONS 29), (anon_sym_raise, ACTIONS 31), (anon_sym_pass, ACTIONS 33),
    (anon_sym_break, ACTIONS 35), (anon_sym_continue, ACTIONS 37),
    (anon_sym___extension, ACTIONS 101), (anon_sym___mlir_region, ACTIONS 103),
    (anon_sym_if, ACTIONS 105), (anon_sym_match, ACTIONS 107), (anon_sym_async, ACTIONS 109),
    (anon_sym_for, ACTIONS 111), (anon_sym_while, ACTIONS 113), (anon_sym_try, ACTIONS 115),
    (anon_sym_with, ACTIONS 117), (anon_sym_def, ACTIONS 119), (anon_sym_fn, ACTIONS 119),
    (anon_sym_LBRACK, ACTIONS 59), (anon_sym_LBRACE, ACTIONS 61), (anon_sym_global, ACTIONS 63),
    (anon_sym_nonlocal, ACTIONS 65), (anon_sym_exec, ACTIONS 67), (anon_sym_type, ACTIONS 69),
    (anon_sym_class, ACTIONS 121), (anon_sym_struct, ACTIONS 121), (anon_sym_mut, ACTIONS 73),
    (anon_sym_out, ACTIONS 73), (anon_sym_trait, ACTIONS 123), (anon_sym_AT, ACTIONS 77),
    (anon_sym_DASH, ACTIONS 79), (anon_sym_PLUS, ACTIONS 79), (anon_sym_ref, ACTIONS 81),
    (anon_sym_var, ACTIONS 81), (anon_sym_not, ACTIONS 83), (anon_sym_TILDE, ACTIONS 79),
    (anon_sym_lambda, ACTIONS 85), (anon_sym_yield, ACTIONS 87), (sym_ellipsis, ACTIONS 89),
    (anon_sym___mlir_type, ACTIONS 91), (sym_integer, ACTIONS 93), (sym_float, ACTIONS 89),
    (anon_sym_await, ACTIONS 95), (sym_true, ACTIONS 93), (sym_false, ACTIONS 93),
    (sym_none, ACTIONS 93), (sym_comment, ACTIONS 3), (sym_line_continuation, ACTIONS 3),
    (sym__dedent, ACTIONS 125), (sym_string_start, ACTIONS 97)]"

definition parse_table_553 :: "(nat \<times> nat) list" where "parse_table_553 = [
    (sym__statement, STATE 927), (sym__simple_statements, STATE 927),
    (sym_import_statement, STATE 11814), (sym_future_import_statement, STATE 11814),
    (sym_import_from_statement, STATE 11814), (sym_print_statement, STATE 11814),
    (sym_assert_statement, STATE 11814), (sym_comptime_assert_statement, STATE 11814),
    (sym_expression_statement, STATE 11814), (sym_tuple_expression, STATE 12425),
    (sym_named_expression, STATE 7969), (sym__named_expression_lhs, STATE 12752),
    (sym_return_statement, STATE 11814), (sym_delete_statement, STATE 11814),
    (sym_raise_statement, STATE 11814), (sym_pass_statement, STATE 11814),
    (sym_break_statement, STATE 11814), (sym_continue_statement, STATE 11814),
    (sym_extension_definition, STATE 927), (sym_mlir_region, STATE 927),
    (sym_comptime_statement, STATE 927), (sym_if_statement, STATE 927),
    (sym_match_statement, STATE 927), (sym_for_statement, STATE 927),
    (sym_while_statement, STATE 927), (sym_try_statement, STATE 927),
    (sym_with_statement, STATE 927), (sym_function_definition, STATE 927),
    (sym_global_statement, STATE 11814), (sym_nonlocal_statement, STATE 11814),
    (sym_exec_statement, STATE 11814), (sym_type_alias_statement, STATE 11814),
    (sym_parameterized_alias_statement, STATE 11814), (sym_class_definition, STATE 927),
    (sym_trait_definition, STATE 927), (sym_decorated_definition, STATE 927),
    (sym_decorator, STATE 3670), (sym_block, STATE 5205), (sym_pattern, STATE 8086),
    (sym_tuple_pattern, STATE 8101), (sym_list_pattern, STATE 8101),
    (sym_list_splat_pattern, STATE 6819), (sym_as_pattern, STATE 7969),
    (sym_expression, STATE 9883), (sym_primary_expression, STATE 7326),
    (sym_comptime_expression, STATE 7017), (sym_transfer_expression, STATE 7017),
    (sym_not_operator, STATE 7969), (sym_boolean_operator, STATE 7969),
    (sym_binary_operator, STATE 7017), (sym_unary_operator, STATE 7017),
    (sym_comparison_operator, STATE 7969), (sym_lambda, STATE 7969),
    (sym_assignment, STATE 12425), (sym_augmented_assignment, STATE 12425),
    (sym_pattern_list, STATE 8578), (sym_yield, STATE 12425), (sym_attribute, STATE 6836),
    (sym_subscript, STATE 6838), (sym_call, STATE 6845), (sym_mlir_type, STATE 7017),
    (sym_list, STATE 7017), (sym_set, STATE 7017), (sym_tuple, STATE 7017),
    (sym_dictionary, STATE 7017), (sym_struct_literal, STATE 7017),
    (sym_list_comprehension, STATE 7017), (sym_dictionary_comprehension, STATE 7017),
    (sym_set_comprehension, STATE 7017), (sym_generator_expression, STATE 7017),
    (sym_parenthesized_expression, STATE 7017), (sym_conditional_expression, STATE 7969),
    (sym_concatenated_string, STATE 7017), (sym_string, STATE 6751), (sym_await, STATE 7017),
    (aux_sym_module_repeat1, STATE 927), (aux_sym_decorated_definition_repeat1, STATE 3670),
    (sym_identifier, ACTIONS 9), (anon_sym_import, ACTIONS 11), (anon_sym_from, ACTIONS 13),
    (anon_sym_LPAREN, ACTIONS 15), (anon_sym_STAR, ACTIONS 17), (anon_sym_print, ACTIONS 19),
    (anon_sym_comptime, ACTIONS 99), (anon_sym_assert, ACTIONS 23),
    (anon_sym___comptime_assert, ACTIONS 25), (anon_sym_return, ACTIONS 27),
    (anon_sym_del, ACTIONS 29), (anon_sym_raise, ACTIONS 31), (anon_sym_pass, ACTIONS 33),
    (anon_sym_break, ACTIONS 35), (anon_sym_continue, ACTIONS 37),
    (anon_sym___extension, ACTIONS 101), (anon_sym___mlir_region, ACTIONS 103),
    (anon_sym_if, ACTIONS 105), (anon_sym_match, ACTIONS 107), (anon_sym_async, ACTIONS 109),
    (anon_sym_for, ACTIONS 111), (anon_sym_while, ACTIONS 113), (anon_sym_try, ACTIONS 115),
    (anon_sym_with, ACTIONS 117), (anon_sym_def, ACTIONS 119), (anon_sym_fn, ACTIONS 119),
    (anon_sym_LBRACK, ACTIONS 59), (anon_sym_LBRACE, ACTIONS 61), (anon_sym_global, ACTIONS 63),
    (anon_sym_nonlocal, ACTIONS 65), (anon_sym_exec, ACTIONS 67), (anon_sym_type, ACTIONS 69),
    (anon_sym_class, ACTIONS 121), (anon_sym_struct, ACTIONS 121), (anon_sym_mut, ACTIONS 73),
    (anon_sym_out, ACTIONS 73), (anon_sym_trait, ACTIONS 123), (anon_sym_AT, ACTIONS 77),
    (anon_sym_DASH, ACTIONS 79), (anon_sym_PLUS, ACTIONS 79), (anon_sym_ref, ACTIONS 81),
    (anon_sym_var, ACTIONS 81), (anon_sym_not, ACTIONS 83), (anon_sym_TILDE, ACTIONS 79),
    (anon_sym_lambda, ACTIONS 85), (anon_sym_yield, ACTIONS 87), (sym_ellipsis, ACTIONS 89),
    (anon_sym___mlir_type, ACTIONS 91), (sym_integer, ACTIONS 93), (sym_float, ACTIONS 89),
    (anon_sym_await, ACTIONS 95), (sym_true, ACTIONS 93), (sym_false, ACTIONS 93),
    (sym_none, ACTIONS 93), (sym_comment, ACTIONS 3), (sym_line_continuation, ACTIONS 3),
    (sym__dedent, ACTIONS 125), (sym_string_start, ACTIONS 97)]"

definition parse_table_554 :: "(nat \<times> nat) list" where "parse_table_554 = [
    (sym__statement, STATE 927), (sym__simple_statements, STATE 927),
    (sym_import_statement, STATE 11814), (sym_future_import_statement, STATE 11814),
    (sym_import_from_statement, STATE 11814), (sym_print_statement, STATE 11814),
    (sym_assert_statement, STATE 11814), (sym_comptime_assert_statement, STATE 11814),
    (sym_expression_statement, STATE 11814), (sym_tuple_expression, STATE 12425),
    (sym_named_expression, STATE 7969), (sym__named_expression_lhs, STATE 12752),
    (sym_return_statement, STATE 11814), (sym_delete_statement, STATE 11814),
    (sym_raise_statement, STATE 11814), (sym_pass_statement, STATE 11814),
    (sym_break_statement, STATE 11814), (sym_continue_statement, STATE 11814),
    (sym_extension_definition, STATE 927), (sym_mlir_region, STATE 927),
    (sym_comptime_statement, STATE 927), (sym_if_statement, STATE 927),
    (sym_match_statement, STATE 927), (sym_for_statement, STATE 927),
    (sym_while_statement, STATE 927), (sym_try_statement, STATE 927),
    (sym_with_statement, STATE 927), (sym_function_definition, STATE 927),
    (sym_global_statement, STATE 11814), (sym_nonlocal_statement, STATE 11814),
    (sym_exec_statement, STATE 11814), (sym_type_alias_statement, STATE 11814),
    (sym_parameterized_alias_statement, STATE 11814), (sym_class_definition, STATE 927),
    (sym_trait_definition, STATE 927), (sym_decorated_definition, STATE 927),
    (sym_decorator, STATE 3670), (sym_block, STATE 5211), (sym_pattern, STATE 8086),
    (sym_tuple_pattern, STATE 8101), (sym_list_pattern, STATE 8101),
    (sym_list_splat_pattern, STATE 6819), (sym_as_pattern, STATE 7969),
    (sym_expression, STATE 9883), (sym_primary_expression, STATE 7326),
    (sym_comptime_expression, STATE 7017), (sym_transfer_expression, STATE 7017),
    (sym_not_operator, STATE 7969), (sym_boolean_operator, STATE 7969),
    (sym_binary_operator, STATE 7017), (sym_unary_operator, STATE 7017),
    (sym_comparison_operator, STATE 7969), (sym_lambda, STATE 7969),
    (sym_assignment, STATE 12425), (sym_augmented_assignment, STATE 12425),
    (sym_pattern_list, STATE 8578), (sym_yield, STATE 12425), (sym_attribute, STATE 6836),
    (sym_subscript, STATE 6838), (sym_call, STATE 6845), (sym_mlir_type, STATE 7017),
    (sym_list, STATE 7017), (sym_set, STATE 7017), (sym_tuple, STATE 7017),
    (sym_dictionary, STATE 7017), (sym_struct_literal, STATE 7017),
    (sym_list_comprehension, STATE 7017), (sym_dictionary_comprehension, STATE 7017),
    (sym_set_comprehension, STATE 7017), (sym_generator_expression, STATE 7017),
    (sym_parenthesized_expression, STATE 7017), (sym_conditional_expression, STATE 7969),
    (sym_concatenated_string, STATE 7017), (sym_string, STATE 6751), (sym_await, STATE 7017),
    (aux_sym_module_repeat1, STATE 927), (aux_sym_decorated_definition_repeat1, STATE 3670),
    (sym_identifier, ACTIONS 9), (anon_sym_import, ACTIONS 11), (anon_sym_from, ACTIONS 13),
    (anon_sym_LPAREN, ACTIONS 15), (anon_sym_STAR, ACTIONS 17), (anon_sym_print, ACTIONS 19),
    (anon_sym_comptime, ACTIONS 99), (anon_sym_assert, ACTIONS 23),
    (anon_sym___comptime_assert, ACTIONS 25), (anon_sym_return, ACTIONS 27),
    (anon_sym_del, ACTIONS 29), (anon_sym_raise, ACTIONS 31), (anon_sym_pass, ACTIONS 33),
    (anon_sym_break, ACTIONS 35), (anon_sym_continue, ACTIONS 37),
    (anon_sym___extension, ACTIONS 101), (anon_sym___mlir_region, ACTIONS 103),
    (anon_sym_if, ACTIONS 105), (anon_sym_match, ACTIONS 107), (anon_sym_async, ACTIONS 109),
    (anon_sym_for, ACTIONS 111), (anon_sym_while, ACTIONS 113), (anon_sym_try, ACTIONS 115),
    (anon_sym_with, ACTIONS 117), (anon_sym_def, ACTIONS 119), (anon_sym_fn, ACTIONS 119),
    (anon_sym_LBRACK, ACTIONS 59), (anon_sym_LBRACE, ACTIONS 61), (anon_sym_global, ACTIONS 63),
    (anon_sym_nonlocal, ACTIONS 65), (anon_sym_exec, ACTIONS 67), (anon_sym_type, ACTIONS 69),
    (anon_sym_class, ACTIONS 121), (anon_sym_struct, ACTIONS 121), (anon_sym_mut, ACTIONS 73),
    (anon_sym_out, ACTIONS 73), (anon_sym_trait, ACTIONS 123), (anon_sym_AT, ACTIONS 77),
    (anon_sym_DASH, ACTIONS 79), (anon_sym_PLUS, ACTIONS 79), (anon_sym_ref, ACTIONS 81),
    (anon_sym_var, ACTIONS 81), (anon_sym_not, ACTIONS 83), (anon_sym_TILDE, ACTIONS 79),
    (anon_sym_lambda, ACTIONS 85), (anon_sym_yield, ACTIONS 87), (sym_ellipsis, ACTIONS 89),
    (anon_sym___mlir_type, ACTIONS 91), (sym_integer, ACTIONS 93), (sym_float, ACTIONS 89),
    (anon_sym_await, ACTIONS 95), (sym_true, ACTIONS 93), (sym_false, ACTIONS 93),
    (sym_none, ACTIONS 93), (sym_comment, ACTIONS 3), (sym_line_continuation, ACTIONS 3),
    (sym__dedent, ACTIONS 125), (sym_string_start, ACTIONS 97)]"

definition parse_table_555 :: "(nat \<times> nat) list" where "parse_table_555 = [
    (sym__statement, STATE 927), (sym__simple_statements, STATE 927),
    (sym_import_statement, STATE 11814), (sym_future_import_statement, STATE 11814),
    (sym_import_from_statement, STATE 11814), (sym_print_statement, STATE 11814),
    (sym_assert_statement, STATE 11814), (sym_comptime_assert_statement, STATE 11814),
    (sym_expression_statement, STATE 11814), (sym_tuple_expression, STATE 12425),
    (sym_named_expression, STATE 7969), (sym__named_expression_lhs, STATE 12752),
    (sym_return_statement, STATE 11814), (sym_delete_statement, STATE 11814),
    (sym_raise_statement, STATE 11814), (sym_pass_statement, STATE 11814),
    (sym_break_statement, STATE 11814), (sym_continue_statement, STATE 11814),
    (sym_extension_definition, STATE 927), (sym_mlir_region, STATE 927),
    (sym_comptime_statement, STATE 927), (sym_if_statement, STATE 927),
    (sym_match_statement, STATE 927), (sym_for_statement, STATE 927),
    (sym_while_statement, STATE 927), (sym_try_statement, STATE 927),
    (sym_with_statement, STATE 927), (sym_function_definition, STATE 927),
    (sym_global_statement, STATE 11814), (sym_nonlocal_statement, STATE 11814),
    (sym_exec_statement, STATE 11814), (sym_type_alias_statement, STATE 11814),
    (sym_parameterized_alias_statement, STATE 11814), (sym_class_definition, STATE 927),
    (sym_trait_definition, STATE 927), (sym_decorated_definition, STATE 927),
    (sym_decorator, STATE 3670), (sym_block, STATE 5223), (sym_pattern, STATE 8086),
    (sym_tuple_pattern, STATE 8101), (sym_list_pattern, STATE 8101),
    (sym_list_splat_pattern, STATE 6819), (sym_as_pattern, STATE 7969),
    (sym_expression, STATE 9883), (sym_primary_expression, STATE 7326),
    (sym_comptime_expression, STATE 7017), (sym_transfer_expression, STATE 7017),
    (sym_not_operator, STATE 7969), (sym_boolean_operator, STATE 7969),
    (sym_binary_operator, STATE 7017), (sym_unary_operator, STATE 7017),
    (sym_comparison_operator, STATE 7969), (sym_lambda, STATE 7969),
    (sym_assignment, STATE 12425), (sym_augmented_assignment, STATE 12425),
    (sym_pattern_list, STATE 8578), (sym_yield, STATE 12425), (sym_attribute, STATE 6836),
    (sym_subscript, STATE 6838), (sym_call, STATE 6845), (sym_mlir_type, STATE 7017),
    (sym_list, STATE 7017), (sym_set, STATE 7017), (sym_tuple, STATE 7017),
    (sym_dictionary, STATE 7017), (sym_struct_literal, STATE 7017),
    (sym_list_comprehension, STATE 7017), (sym_dictionary_comprehension, STATE 7017),
    (sym_set_comprehension, STATE 7017), (sym_generator_expression, STATE 7017),
    (sym_parenthesized_expression, STATE 7017), (sym_conditional_expression, STATE 7969),
    (sym_concatenated_string, STATE 7017), (sym_string, STATE 6751), (sym_await, STATE 7017),
    (aux_sym_module_repeat1, STATE 927), (aux_sym_decorated_definition_repeat1, STATE 3670),
    (sym_identifier, ACTIONS 9), (anon_sym_import, ACTIONS 11), (anon_sym_from, ACTIONS 13),
    (anon_sym_LPAREN, ACTIONS 15), (anon_sym_STAR, ACTIONS 17), (anon_sym_print, ACTIONS 19),
    (anon_sym_comptime, ACTIONS 99), (anon_sym_assert, ACTIONS 23),
    (anon_sym___comptime_assert, ACTIONS 25), (anon_sym_return, ACTIONS 27),
    (anon_sym_del, ACTIONS 29), (anon_sym_raise, ACTIONS 31), (anon_sym_pass, ACTIONS 33),
    (anon_sym_break, ACTIONS 35), (anon_sym_continue, ACTIONS 37),
    (anon_sym___extension, ACTIONS 101), (anon_sym___mlir_region, ACTIONS 103),
    (anon_sym_if, ACTIONS 105), (anon_sym_match, ACTIONS 107), (anon_sym_async, ACTIONS 109),
    (anon_sym_for, ACTIONS 111), (anon_sym_while, ACTIONS 113), (anon_sym_try, ACTIONS 115),
    (anon_sym_with, ACTIONS 117), (anon_sym_def, ACTIONS 119), (anon_sym_fn, ACTIONS 119),
    (anon_sym_LBRACK, ACTIONS 59), (anon_sym_LBRACE, ACTIONS 61), (anon_sym_global, ACTIONS 63),
    (anon_sym_nonlocal, ACTIONS 65), (anon_sym_exec, ACTIONS 67), (anon_sym_type, ACTIONS 69),
    (anon_sym_class, ACTIONS 121), (anon_sym_struct, ACTIONS 121), (anon_sym_mut, ACTIONS 73),
    (anon_sym_out, ACTIONS 73), (anon_sym_trait, ACTIONS 123), (anon_sym_AT, ACTIONS 77),
    (anon_sym_DASH, ACTIONS 79), (anon_sym_PLUS, ACTIONS 79), (anon_sym_ref, ACTIONS 81),
    (anon_sym_var, ACTIONS 81), (anon_sym_not, ACTIONS 83), (anon_sym_TILDE, ACTIONS 79),
    (anon_sym_lambda, ACTIONS 85), (anon_sym_yield, ACTIONS 87), (sym_ellipsis, ACTIONS 89),
    (anon_sym___mlir_type, ACTIONS 91), (sym_integer, ACTIONS 93), (sym_float, ACTIONS 89),
    (anon_sym_await, ACTIONS 95), (sym_true, ACTIONS 93), (sym_false, ACTIONS 93),
    (sym_none, ACTIONS 93), (sym_comment, ACTIONS 3), (sym_line_continuation, ACTIONS 3),
    (sym__dedent, ACTIONS 125), (sym_string_start, ACTIONS 97)]"

definition parse_table_556 :: "(nat \<times> nat) list" where "parse_table_556 = [
    (sym__statement, STATE 927), (sym__simple_statements, STATE 927),
    (sym_import_statement, STATE 11814), (sym_future_import_statement, STATE 11814),
    (sym_import_from_statement, STATE 11814), (sym_print_statement, STATE 11814),
    (sym_assert_statement, STATE 11814), (sym_comptime_assert_statement, STATE 11814),
    (sym_expression_statement, STATE 11814), (sym_tuple_expression, STATE 12425),
    (sym_named_expression, STATE 7969), (sym__named_expression_lhs, STATE 12752),
    (sym_return_statement, STATE 11814), (sym_delete_statement, STATE 11814),
    (sym_raise_statement, STATE 11814), (sym_pass_statement, STATE 11814),
    (sym_break_statement, STATE 11814), (sym_continue_statement, STATE 11814),
    (sym_extension_definition, STATE 927), (sym_mlir_region, STATE 927),
    (sym_comptime_statement, STATE 927), (sym_if_statement, STATE 927),
    (sym_match_statement, STATE 927), (sym_for_statement, STATE 927),
    (sym_while_statement, STATE 927), (sym_try_statement, STATE 927),
    (sym_with_statement, STATE 927), (sym_function_definition, STATE 927),
    (sym_global_statement, STATE 11814), (sym_nonlocal_statement, STATE 11814),
    (sym_exec_statement, STATE 11814), (sym_type_alias_statement, STATE 11814),
    (sym_parameterized_alias_statement, STATE 11814), (sym_class_definition, STATE 927),
    (sym_trait_definition, STATE 927), (sym_decorated_definition, STATE 927),
    (sym_decorator, STATE 3670), (sym_block, STATE 5248), (sym_pattern, STATE 8086),
    (sym_tuple_pattern, STATE 8101), (sym_list_pattern, STATE 8101),
    (sym_list_splat_pattern, STATE 6819), (sym_as_pattern, STATE 7969),
    (sym_expression, STATE 9883), (sym_primary_expression, STATE 7326),
    (sym_comptime_expression, STATE 7017), (sym_transfer_expression, STATE 7017),
    (sym_not_operator, STATE 7969), (sym_boolean_operator, STATE 7969),
    (sym_binary_operator, STATE 7017), (sym_unary_operator, STATE 7017),
    (sym_comparison_operator, STATE 7969), (sym_lambda, STATE 7969),
    (sym_assignment, STATE 12425), (sym_augmented_assignment, STATE 12425),
    (sym_pattern_list, STATE 8578), (sym_yield, STATE 12425), (sym_attribute, STATE 6836),
    (sym_subscript, STATE 6838), (sym_call, STATE 6845), (sym_mlir_type, STATE 7017),
    (sym_list, STATE 7017), (sym_set, STATE 7017), (sym_tuple, STATE 7017),
    (sym_dictionary, STATE 7017), (sym_struct_literal, STATE 7017),
    (sym_list_comprehension, STATE 7017), (sym_dictionary_comprehension, STATE 7017),
    (sym_set_comprehension, STATE 7017), (sym_generator_expression, STATE 7017),
    (sym_parenthesized_expression, STATE 7017), (sym_conditional_expression, STATE 7969),
    (sym_concatenated_string, STATE 7017), (sym_string, STATE 6751), (sym_await, STATE 7017),
    (aux_sym_module_repeat1, STATE 927), (aux_sym_decorated_definition_repeat1, STATE 3670),
    (sym_identifier, ACTIONS 9), (anon_sym_import, ACTIONS 11), (anon_sym_from, ACTIONS 13),
    (anon_sym_LPAREN, ACTIONS 15), (anon_sym_STAR, ACTIONS 17), (anon_sym_print, ACTIONS 19),
    (anon_sym_comptime, ACTIONS 99), (anon_sym_assert, ACTIONS 23),
    (anon_sym___comptime_assert, ACTIONS 25), (anon_sym_return, ACTIONS 27),
    (anon_sym_del, ACTIONS 29), (anon_sym_raise, ACTIONS 31), (anon_sym_pass, ACTIONS 33),
    (anon_sym_break, ACTIONS 35), (anon_sym_continue, ACTIONS 37),
    (anon_sym___extension, ACTIONS 101), (anon_sym___mlir_region, ACTIONS 103),
    (anon_sym_if, ACTIONS 105), (anon_sym_match, ACTIONS 107), (anon_sym_async, ACTIONS 109),
    (anon_sym_for, ACTIONS 111), (anon_sym_while, ACTIONS 113), (anon_sym_try, ACTIONS 115),
    (anon_sym_with, ACTIONS 117), (anon_sym_def, ACTIONS 119), (anon_sym_fn, ACTIONS 119),
    (anon_sym_LBRACK, ACTIONS 59), (anon_sym_LBRACE, ACTIONS 61), (anon_sym_global, ACTIONS 63),
    (anon_sym_nonlocal, ACTIONS 65), (anon_sym_exec, ACTIONS 67), (anon_sym_type, ACTIONS 69),
    (anon_sym_class, ACTIONS 121), (anon_sym_struct, ACTIONS 121), (anon_sym_mut, ACTIONS 73),
    (anon_sym_out, ACTIONS 73), (anon_sym_trait, ACTIONS 123), (anon_sym_AT, ACTIONS 77),
    (anon_sym_DASH, ACTIONS 79), (anon_sym_PLUS, ACTIONS 79), (anon_sym_ref, ACTIONS 81),
    (anon_sym_var, ACTIONS 81), (anon_sym_not, ACTIONS 83), (anon_sym_TILDE, ACTIONS 79),
    (anon_sym_lambda, ACTIONS 85), (anon_sym_yield, ACTIONS 87), (sym_ellipsis, ACTIONS 89),
    (anon_sym___mlir_type, ACTIONS 91), (sym_integer, ACTIONS 93), (sym_float, ACTIONS 89),
    (anon_sym_await, ACTIONS 95), (sym_true, ACTIONS 93), (sym_false, ACTIONS 93),
    (sym_none, ACTIONS 93), (sym_comment, ACTIONS 3), (sym_line_continuation, ACTIONS 3),
    (sym__dedent, ACTIONS 125), (sym_string_start, ACTIONS 97)]"

definition parse_table_557 :: "(nat \<times> nat) list" where "parse_table_557 = [
    (sym__statement, STATE 927), (sym__simple_statements, STATE 927),
    (sym_import_statement, STATE 11814), (sym_future_import_statement, STATE 11814),
    (sym_import_from_statement, STATE 11814), (sym_print_statement, STATE 11814),
    (sym_assert_statement, STATE 11814), (sym_comptime_assert_statement, STATE 11814),
    (sym_expression_statement, STATE 11814), (sym_tuple_expression, STATE 12425),
    (sym_named_expression, STATE 7969), (sym__named_expression_lhs, STATE 12752),
    (sym_return_statement, STATE 11814), (sym_delete_statement, STATE 11814),
    (sym_raise_statement, STATE 11814), (sym_pass_statement, STATE 11814),
    (sym_break_statement, STATE 11814), (sym_continue_statement, STATE 11814),
    (sym_extension_definition, STATE 927), (sym_mlir_region, STATE 927),
    (sym_comptime_statement, STATE 927), (sym_if_statement, STATE 927),
    (sym_match_statement, STATE 927), (sym_for_statement, STATE 927),
    (sym_while_statement, STATE 927), (sym_try_statement, STATE 927),
    (sym_with_statement, STATE 927), (sym_function_definition, STATE 927),
    (sym_global_statement, STATE 11814), (sym_nonlocal_statement, STATE 11814),
    (sym_exec_statement, STATE 11814), (sym_type_alias_statement, STATE 11814),
    (sym_parameterized_alias_statement, STATE 11814), (sym_class_definition, STATE 927),
    (sym_trait_definition, STATE 927), (sym_decorated_definition, STATE 927),
    (sym_decorator, STATE 3670), (sym_block, STATE 5250), (sym_pattern, STATE 8086),
    (sym_tuple_pattern, STATE 8101), (sym_list_pattern, STATE 8101),
    (sym_list_splat_pattern, STATE 6819), (sym_as_pattern, STATE 7969),
    (sym_expression, STATE 9883), (sym_primary_expression, STATE 7326),
    (sym_comptime_expression, STATE 7017), (sym_transfer_expression, STATE 7017),
    (sym_not_operator, STATE 7969), (sym_boolean_operator, STATE 7969),
    (sym_binary_operator, STATE 7017), (sym_unary_operator, STATE 7017),
    (sym_comparison_operator, STATE 7969), (sym_lambda, STATE 7969),
    (sym_assignment, STATE 12425), (sym_augmented_assignment, STATE 12425),
    (sym_pattern_list, STATE 8578), (sym_yield, STATE 12425), (sym_attribute, STATE 6836),
    (sym_subscript, STATE 6838), (sym_call, STATE 6845), (sym_mlir_type, STATE 7017),
    (sym_list, STATE 7017), (sym_set, STATE 7017), (sym_tuple, STATE 7017),
    (sym_dictionary, STATE 7017), (sym_struct_literal, STATE 7017),
    (sym_list_comprehension, STATE 7017), (sym_dictionary_comprehension, STATE 7017),
    (sym_set_comprehension, STATE 7017), (sym_generator_expression, STATE 7017),
    (sym_parenthesized_expression, STATE 7017), (sym_conditional_expression, STATE 7969),
    (sym_concatenated_string, STATE 7017), (sym_string, STATE 6751), (sym_await, STATE 7017),
    (aux_sym_module_repeat1, STATE 927), (aux_sym_decorated_definition_repeat1, STATE 3670),
    (sym_identifier, ACTIONS 9), (anon_sym_import, ACTIONS 11), (anon_sym_from, ACTIONS 13),
    (anon_sym_LPAREN, ACTIONS 15), (anon_sym_STAR, ACTIONS 17), (anon_sym_print, ACTIONS 19),
    (anon_sym_comptime, ACTIONS 99), (anon_sym_assert, ACTIONS 23),
    (anon_sym___comptime_assert, ACTIONS 25), (anon_sym_return, ACTIONS 27),
    (anon_sym_del, ACTIONS 29), (anon_sym_raise, ACTIONS 31), (anon_sym_pass, ACTIONS 33),
    (anon_sym_break, ACTIONS 35), (anon_sym_continue, ACTIONS 37),
    (anon_sym___extension, ACTIONS 101), (anon_sym___mlir_region, ACTIONS 103),
    (anon_sym_if, ACTIONS 105), (anon_sym_match, ACTIONS 107), (anon_sym_async, ACTIONS 109),
    (anon_sym_for, ACTIONS 111), (anon_sym_while, ACTIONS 113), (anon_sym_try, ACTIONS 115),
    (anon_sym_with, ACTIONS 117), (anon_sym_def, ACTIONS 119), (anon_sym_fn, ACTIONS 119),
    (anon_sym_LBRACK, ACTIONS 59), (anon_sym_LBRACE, ACTIONS 61), (anon_sym_global, ACTIONS 63),
    (anon_sym_nonlocal, ACTIONS 65), (anon_sym_exec, ACTIONS 67), (anon_sym_type, ACTIONS 69),
    (anon_sym_class, ACTIONS 121), (anon_sym_struct, ACTIONS 121), (anon_sym_mut, ACTIONS 73),
    (anon_sym_out, ACTIONS 73), (anon_sym_trait, ACTIONS 123), (anon_sym_AT, ACTIONS 77),
    (anon_sym_DASH, ACTIONS 79), (anon_sym_PLUS, ACTIONS 79), (anon_sym_ref, ACTIONS 81),
    (anon_sym_var, ACTIONS 81), (anon_sym_not, ACTIONS 83), (anon_sym_TILDE, ACTIONS 79),
    (anon_sym_lambda, ACTIONS 85), (anon_sym_yield, ACTIONS 87), (sym_ellipsis, ACTIONS 89),
    (anon_sym___mlir_type, ACTIONS 91), (sym_integer, ACTIONS 93), (sym_float, ACTIONS 89),
    (anon_sym_await, ACTIONS 95), (sym_true, ACTIONS 93), (sym_false, ACTIONS 93),
    (sym_none, ACTIONS 93), (sym_comment, ACTIONS 3), (sym_line_continuation, ACTIONS 3),
    (sym__dedent, ACTIONS 125), (sym_string_start, ACTIONS 97)]"

definition parse_table_558 :: "(nat \<times> nat) list" where "parse_table_558 = [
    (sym__statement, STATE 927), (sym__simple_statements, STATE 927),
    (sym_import_statement, STATE 11814), (sym_future_import_statement, STATE 11814),
    (sym_import_from_statement, STATE 11814), (sym_print_statement, STATE 11814),
    (sym_assert_statement, STATE 11814), (sym_comptime_assert_statement, STATE 11814),
    (sym_expression_statement, STATE 11814), (sym_tuple_expression, STATE 12425),
    (sym_named_expression, STATE 7969), (sym__named_expression_lhs, STATE 12752),
    (sym_return_statement, STATE 11814), (sym_delete_statement, STATE 11814),
    (sym_raise_statement, STATE 11814), (sym_pass_statement, STATE 11814),
    (sym_break_statement, STATE 11814), (sym_continue_statement, STATE 11814),
    (sym_extension_definition, STATE 927), (sym_mlir_region, STATE 927),
    (sym_comptime_statement, STATE 927), (sym_if_statement, STATE 927),
    (sym_match_statement, STATE 927), (sym_for_statement, STATE 927),
    (sym_while_statement, STATE 927), (sym_try_statement, STATE 927),
    (sym_with_statement, STATE 927), (sym_function_definition, STATE 927),
    (sym_global_statement, STATE 11814), (sym_nonlocal_statement, STATE 11814),
    (sym_exec_statement, STATE 11814), (sym_type_alias_statement, STATE 11814),
    (sym_parameterized_alias_statement, STATE 11814), (sym_class_definition, STATE 927),
    (sym_trait_definition, STATE 927), (sym_decorated_definition, STATE 927),
    (sym_decorator, STATE 3670), (sym_block, STATE 5262), (sym_pattern, STATE 8086),
    (sym_tuple_pattern, STATE 8101), (sym_list_pattern, STATE 8101),
    (sym_list_splat_pattern, STATE 6819), (sym_as_pattern, STATE 7969),
    (sym_expression, STATE 9883), (sym_primary_expression, STATE 7326),
    (sym_comptime_expression, STATE 7017), (sym_transfer_expression, STATE 7017),
    (sym_not_operator, STATE 7969), (sym_boolean_operator, STATE 7969),
    (sym_binary_operator, STATE 7017), (sym_unary_operator, STATE 7017),
    (sym_comparison_operator, STATE 7969), (sym_lambda, STATE 7969),
    (sym_assignment, STATE 12425), (sym_augmented_assignment, STATE 12425),
    (sym_pattern_list, STATE 8578), (sym_yield, STATE 12425), (sym_attribute, STATE 6836),
    (sym_subscript, STATE 6838), (sym_call, STATE 6845), (sym_mlir_type, STATE 7017),
    (sym_list, STATE 7017), (sym_set, STATE 7017), (sym_tuple, STATE 7017),
    (sym_dictionary, STATE 7017), (sym_struct_literal, STATE 7017),
    (sym_list_comprehension, STATE 7017), (sym_dictionary_comprehension, STATE 7017),
    (sym_set_comprehension, STATE 7017), (sym_generator_expression, STATE 7017),
    (sym_parenthesized_expression, STATE 7017), (sym_conditional_expression, STATE 7969),
    (sym_concatenated_string, STATE 7017), (sym_string, STATE 6751), (sym_await, STATE 7017),
    (aux_sym_module_repeat1, STATE 927), (aux_sym_decorated_definition_repeat1, STATE 3670),
    (sym_identifier, ACTIONS 9), (anon_sym_import, ACTIONS 11), (anon_sym_from, ACTIONS 13),
    (anon_sym_LPAREN, ACTIONS 15), (anon_sym_STAR, ACTIONS 17), (anon_sym_print, ACTIONS 19),
    (anon_sym_comptime, ACTIONS 99), (anon_sym_assert, ACTIONS 23),
    (anon_sym___comptime_assert, ACTIONS 25), (anon_sym_return, ACTIONS 27),
    (anon_sym_del, ACTIONS 29), (anon_sym_raise, ACTIONS 31), (anon_sym_pass, ACTIONS 33),
    (anon_sym_break, ACTIONS 35), (anon_sym_continue, ACTIONS 37),
    (anon_sym___extension, ACTIONS 101), (anon_sym___mlir_region, ACTIONS 103),
    (anon_sym_if, ACTIONS 105), (anon_sym_match, ACTIONS 107), (anon_sym_async, ACTIONS 109),
    (anon_sym_for, ACTIONS 111), (anon_sym_while, ACTIONS 113), (anon_sym_try, ACTIONS 115),
    (anon_sym_with, ACTIONS 117), (anon_sym_def, ACTIONS 119), (anon_sym_fn, ACTIONS 119),
    (anon_sym_LBRACK, ACTIONS 59), (anon_sym_LBRACE, ACTIONS 61), (anon_sym_global, ACTIONS 63),
    (anon_sym_nonlocal, ACTIONS 65), (anon_sym_exec, ACTIONS 67), (anon_sym_type, ACTIONS 69),
    (anon_sym_class, ACTIONS 121), (anon_sym_struct, ACTIONS 121), (anon_sym_mut, ACTIONS 73),
    (anon_sym_out, ACTIONS 73), (anon_sym_trait, ACTIONS 123), (anon_sym_AT, ACTIONS 77),
    (anon_sym_DASH, ACTIONS 79), (anon_sym_PLUS, ACTIONS 79), (anon_sym_ref, ACTIONS 81),
    (anon_sym_var, ACTIONS 81), (anon_sym_not, ACTIONS 83), (anon_sym_TILDE, ACTIONS 79),
    (anon_sym_lambda, ACTIONS 85), (anon_sym_yield, ACTIONS 87), (sym_ellipsis, ACTIONS 89),
    (anon_sym___mlir_type, ACTIONS 91), (sym_integer, ACTIONS 93), (sym_float, ACTIONS 89),
    (anon_sym_await, ACTIONS 95), (sym_true, ACTIONS 93), (sym_false, ACTIONS 93),
    (sym_none, ACTIONS 93), (sym_comment, ACTIONS 3), (sym_line_continuation, ACTIONS 3),
    (sym__dedent, ACTIONS 125), (sym_string_start, ACTIONS 97)]"

definition parse_table_559 :: "(nat \<times> nat) list" where "parse_table_559 = [
    (sym__statement, STATE 927), (sym__simple_statements, STATE 927),
    (sym_import_statement, STATE 11814), (sym_future_import_statement, STATE 11814),
    (sym_import_from_statement, STATE 11814), (sym_print_statement, STATE 11814),
    (sym_assert_statement, STATE 11814), (sym_comptime_assert_statement, STATE 11814),
    (sym_expression_statement, STATE 11814), (sym_tuple_expression, STATE 12425),
    (sym_named_expression, STATE 7969), (sym__named_expression_lhs, STATE 12752),
    (sym_return_statement, STATE 11814), (sym_delete_statement, STATE 11814),
    (sym_raise_statement, STATE 11814), (sym_pass_statement, STATE 11814),
    (sym_break_statement, STATE 11814), (sym_continue_statement, STATE 11814),
    (sym_extension_definition, STATE 927), (sym_mlir_region, STATE 927),
    (sym_comptime_statement, STATE 927), (sym_if_statement, STATE 927),
    (sym_match_statement, STATE 927), (sym_for_statement, STATE 927),
    (sym_while_statement, STATE 927), (sym_try_statement, STATE 927),
    (sym_with_statement, STATE 927), (sym_function_definition, STATE 927),
    (sym_global_statement, STATE 11814), (sym_nonlocal_statement, STATE 11814),
    (sym_exec_statement, STATE 11814), (sym_type_alias_statement, STATE 11814),
    (sym_parameterized_alias_statement, STATE 11814), (sym_class_definition, STATE 927),
    (sym_trait_definition, STATE 927), (sym_decorated_definition, STATE 927),
    (sym_decorator, STATE 3670), (sym_block, STATE 5299), (sym_pattern, STATE 8086),
    (sym_tuple_pattern, STATE 8101), (sym_list_pattern, STATE 8101),
    (sym_list_splat_pattern, STATE 6819), (sym_as_pattern, STATE 7969),
    (sym_expression, STATE 9883), (sym_primary_expression, STATE 7326),
    (sym_comptime_expression, STATE 7017), (sym_transfer_expression, STATE 7017),
    (sym_not_operator, STATE 7969), (sym_boolean_operator, STATE 7969),
    (sym_binary_operator, STATE 7017), (sym_unary_operator, STATE 7017),
    (sym_comparison_operator, STATE 7969), (sym_lambda, STATE 7969),
    (sym_assignment, STATE 12425), (sym_augmented_assignment, STATE 12425),
    (sym_pattern_list, STATE 8578), (sym_yield, STATE 12425), (sym_attribute, STATE 6836),
    (sym_subscript, STATE 6838), (sym_call, STATE 6845), (sym_mlir_type, STATE 7017),
    (sym_list, STATE 7017), (sym_set, STATE 7017), (sym_tuple, STATE 7017),
    (sym_dictionary, STATE 7017), (sym_struct_literal, STATE 7017),
    (sym_list_comprehension, STATE 7017), (sym_dictionary_comprehension, STATE 7017),
    (sym_set_comprehension, STATE 7017), (sym_generator_expression, STATE 7017),
    (sym_parenthesized_expression, STATE 7017), (sym_conditional_expression, STATE 7969),
    (sym_concatenated_string, STATE 7017), (sym_string, STATE 6751), (sym_await, STATE 7017),
    (aux_sym_module_repeat1, STATE 927), (aux_sym_decorated_definition_repeat1, STATE 3670),
    (sym_identifier, ACTIONS 9), (anon_sym_import, ACTIONS 11), (anon_sym_from, ACTIONS 13),
    (anon_sym_LPAREN, ACTIONS 15), (anon_sym_STAR, ACTIONS 17), (anon_sym_print, ACTIONS 19),
    (anon_sym_comptime, ACTIONS 99), (anon_sym_assert, ACTIONS 23),
    (anon_sym___comptime_assert, ACTIONS 25), (anon_sym_return, ACTIONS 27),
    (anon_sym_del, ACTIONS 29), (anon_sym_raise, ACTIONS 31), (anon_sym_pass, ACTIONS 33),
    (anon_sym_break, ACTIONS 35), (anon_sym_continue, ACTIONS 37),
    (anon_sym___extension, ACTIONS 101), (anon_sym___mlir_region, ACTIONS 103),
    (anon_sym_if, ACTIONS 105), (anon_sym_match, ACTIONS 107), (anon_sym_async, ACTIONS 109),
    (anon_sym_for, ACTIONS 111), (anon_sym_while, ACTIONS 113), (anon_sym_try, ACTIONS 115),
    (anon_sym_with, ACTIONS 117), (anon_sym_def, ACTIONS 119), (anon_sym_fn, ACTIONS 119),
    (anon_sym_LBRACK, ACTIONS 59), (anon_sym_LBRACE, ACTIONS 61), (anon_sym_global, ACTIONS 63),
    (anon_sym_nonlocal, ACTIONS 65), (anon_sym_exec, ACTIONS 67), (anon_sym_type, ACTIONS 69),
    (anon_sym_class, ACTIONS 121), (anon_sym_struct, ACTIONS 121), (anon_sym_mut, ACTIONS 73),
    (anon_sym_out, ACTIONS 73), (anon_sym_trait, ACTIONS 123), (anon_sym_AT, ACTIONS 77),
    (anon_sym_DASH, ACTIONS 79), (anon_sym_PLUS, ACTIONS 79), (anon_sym_ref, ACTIONS 81),
    (anon_sym_var, ACTIONS 81), (anon_sym_not, ACTIONS 83), (anon_sym_TILDE, ACTIONS 79),
    (anon_sym_lambda, ACTIONS 85), (anon_sym_yield, ACTIONS 87), (sym_ellipsis, ACTIONS 89),
    (anon_sym___mlir_type, ACTIONS 91), (sym_integer, ACTIONS 93), (sym_float, ACTIONS 89),
    (anon_sym_await, ACTIONS 95), (sym_true, ACTIONS 93), (sym_false, ACTIONS 93),
    (sym_none, ACTIONS 93), (sym_comment, ACTIONS 3), (sym_line_continuation, ACTIONS 3),
    (sym__dedent, ACTIONS 125), (sym_string_start, ACTIONS 97)]"

definition parse_table_560 :: "(nat \<times> nat) list" where "parse_table_560 = [
    (sym__statement, STATE 927), (sym__simple_statements, STATE 927),
    (sym_import_statement, STATE 11814), (sym_future_import_statement, STATE 11814),
    (sym_import_from_statement, STATE 11814), (sym_print_statement, STATE 11814),
    (sym_assert_statement, STATE 11814), (sym_comptime_assert_statement, STATE 11814),
    (sym_expression_statement, STATE 11814), (sym_tuple_expression, STATE 12425),
    (sym_named_expression, STATE 7969), (sym__named_expression_lhs, STATE 12752),
    (sym_return_statement, STATE 11814), (sym_delete_statement, STATE 11814),
    (sym_raise_statement, STATE 11814), (sym_pass_statement, STATE 11814),
    (sym_break_statement, STATE 11814), (sym_continue_statement, STATE 11814),
    (sym_extension_definition, STATE 927), (sym_mlir_region, STATE 927),
    (sym_comptime_statement, STATE 927), (sym_if_statement, STATE 927),
    (sym_match_statement, STATE 927), (sym_for_statement, STATE 927),
    (sym_while_statement, STATE 927), (sym_try_statement, STATE 927),
    (sym_with_statement, STATE 927), (sym_function_definition, STATE 927),
    (sym_global_statement, STATE 11814), (sym_nonlocal_statement, STATE 11814),
    (sym_exec_statement, STATE 11814), (sym_type_alias_statement, STATE 11814),
    (sym_parameterized_alias_statement, STATE 11814), (sym_class_definition, STATE 927),
    (sym_trait_definition, STATE 927), (sym_decorated_definition, STATE 927),
    (sym_decorator, STATE 3670), (sym_block, STATE 5332), (sym_pattern, STATE 8086),
    (sym_tuple_pattern, STATE 8101), (sym_list_pattern, STATE 8101),
    (sym_list_splat_pattern, STATE 6819), (sym_as_pattern, STATE 7969),
    (sym_expression, STATE 9883), (sym_primary_expression, STATE 7326),
    (sym_comptime_expression, STATE 7017), (sym_transfer_expression, STATE 7017),
    (sym_not_operator, STATE 7969), (sym_boolean_operator, STATE 7969),
    (sym_binary_operator, STATE 7017), (sym_unary_operator, STATE 7017),
    (sym_comparison_operator, STATE 7969), (sym_lambda, STATE 7969),
    (sym_assignment, STATE 12425), (sym_augmented_assignment, STATE 12425),
    (sym_pattern_list, STATE 8578), (sym_yield, STATE 12425), (sym_attribute, STATE 6836),
    (sym_subscript, STATE 6838), (sym_call, STATE 6845), (sym_mlir_type, STATE 7017),
    (sym_list, STATE 7017), (sym_set, STATE 7017), (sym_tuple, STATE 7017),
    (sym_dictionary, STATE 7017), (sym_struct_literal, STATE 7017),
    (sym_list_comprehension, STATE 7017), (sym_dictionary_comprehension, STATE 7017),
    (sym_set_comprehension, STATE 7017), (sym_generator_expression, STATE 7017),
    (sym_parenthesized_expression, STATE 7017), (sym_conditional_expression, STATE 7969),
    (sym_concatenated_string, STATE 7017), (sym_string, STATE 6751), (sym_await, STATE 7017),
    (aux_sym_module_repeat1, STATE 927), (aux_sym_decorated_definition_repeat1, STATE 3670),
    (sym_identifier, ACTIONS 9), (anon_sym_import, ACTIONS 11), (anon_sym_from, ACTIONS 13),
    (anon_sym_LPAREN, ACTIONS 15), (anon_sym_STAR, ACTIONS 17), (anon_sym_print, ACTIONS 19),
    (anon_sym_comptime, ACTIONS 99), (anon_sym_assert, ACTIONS 23),
    (anon_sym___comptime_assert, ACTIONS 25), (anon_sym_return, ACTIONS 27),
    (anon_sym_del, ACTIONS 29), (anon_sym_raise, ACTIONS 31), (anon_sym_pass, ACTIONS 33),
    (anon_sym_break, ACTIONS 35), (anon_sym_continue, ACTIONS 37),
    (anon_sym___extension, ACTIONS 101), (anon_sym___mlir_region, ACTIONS 103),
    (anon_sym_if, ACTIONS 105), (anon_sym_match, ACTIONS 107), (anon_sym_async, ACTIONS 109),
    (anon_sym_for, ACTIONS 111), (anon_sym_while, ACTIONS 113), (anon_sym_try, ACTIONS 115),
    (anon_sym_with, ACTIONS 117), (anon_sym_def, ACTIONS 119), (anon_sym_fn, ACTIONS 119),
    (anon_sym_LBRACK, ACTIONS 59), (anon_sym_LBRACE, ACTIONS 61), (anon_sym_global, ACTIONS 63),
    (anon_sym_nonlocal, ACTIONS 65), (anon_sym_exec, ACTIONS 67), (anon_sym_type, ACTIONS 69),
    (anon_sym_class, ACTIONS 121), (anon_sym_struct, ACTIONS 121), (anon_sym_mut, ACTIONS 73),
    (anon_sym_out, ACTIONS 73), (anon_sym_trait, ACTIONS 123), (anon_sym_AT, ACTIONS 77),
    (anon_sym_DASH, ACTIONS 79), (anon_sym_PLUS, ACTIONS 79), (anon_sym_ref, ACTIONS 81),
    (anon_sym_var, ACTIONS 81), (anon_sym_not, ACTIONS 83), (anon_sym_TILDE, ACTIONS 79),
    (anon_sym_lambda, ACTIONS 85), (anon_sym_yield, ACTIONS 87), (sym_ellipsis, ACTIONS 89),
    (anon_sym___mlir_type, ACTIONS 91), (sym_integer, ACTIONS 93), (sym_float, ACTIONS 89),
    (anon_sym_await, ACTIONS 95), (sym_true, ACTIONS 93), (sym_false, ACTIONS 93),
    (sym_none, ACTIONS 93), (sym_comment, ACTIONS 3), (sym_line_continuation, ACTIONS 3),
    (sym__dedent, ACTIONS 125), (sym_string_start, ACTIONS 97)]"

definition parse_table_561 :: "(nat \<times> nat) list" where "parse_table_561 = [
    (sym__statement, STATE 927), (sym__simple_statements, STATE 927),
    (sym_import_statement, STATE 11814), (sym_future_import_statement, STATE 11814),
    (sym_import_from_statement, STATE 11814), (sym_print_statement, STATE 11814),
    (sym_assert_statement, STATE 11814), (sym_comptime_assert_statement, STATE 11814),
    (sym_expression_statement, STATE 11814), (sym_tuple_expression, STATE 12425),
    (sym_named_expression, STATE 7969), (sym__named_expression_lhs, STATE 12752),
    (sym_return_statement, STATE 11814), (sym_delete_statement, STATE 11814),
    (sym_raise_statement, STATE 11814), (sym_pass_statement, STATE 11814),
    (sym_break_statement, STATE 11814), (sym_continue_statement, STATE 11814),
    (sym_extension_definition, STATE 927), (sym_mlir_region, STATE 927),
    (sym_comptime_statement, STATE 927), (sym_if_statement, STATE 927),
    (sym_match_statement, STATE 927), (sym_for_statement, STATE 927),
    (sym_while_statement, STATE 927), (sym_try_statement, STATE 927),
    (sym_with_statement, STATE 927), (sym_function_definition, STATE 927),
    (sym_global_statement, STATE 11814), (sym_nonlocal_statement, STATE 11814),
    (sym_exec_statement, STATE 11814), (sym_type_alias_statement, STATE 11814),
    (sym_parameterized_alias_statement, STATE 11814), (sym_class_definition, STATE 927),
    (sym_trait_definition, STATE 927), (sym_decorated_definition, STATE 927),
    (sym_decorator, STATE 3670), (sym_block, STATE 5334), (sym_pattern, STATE 8086),
    (sym_tuple_pattern, STATE 8101), (sym_list_pattern, STATE 8101),
    (sym_list_splat_pattern, STATE 6819), (sym_as_pattern, STATE 7969),
    (sym_expression, STATE 9883), (sym_primary_expression, STATE 7326),
    (sym_comptime_expression, STATE 7017), (sym_transfer_expression, STATE 7017),
    (sym_not_operator, STATE 7969), (sym_boolean_operator, STATE 7969),
    (sym_binary_operator, STATE 7017), (sym_unary_operator, STATE 7017),
    (sym_comparison_operator, STATE 7969), (sym_lambda, STATE 7969),
    (sym_assignment, STATE 12425), (sym_augmented_assignment, STATE 12425),
    (sym_pattern_list, STATE 8578), (sym_yield, STATE 12425), (sym_attribute, STATE 6836),
    (sym_subscript, STATE 6838), (sym_call, STATE 6845), (sym_mlir_type, STATE 7017),
    (sym_list, STATE 7017), (sym_set, STATE 7017), (sym_tuple, STATE 7017),
    (sym_dictionary, STATE 7017), (sym_struct_literal, STATE 7017),
    (sym_list_comprehension, STATE 7017), (sym_dictionary_comprehension, STATE 7017),
    (sym_set_comprehension, STATE 7017), (sym_generator_expression, STATE 7017),
    (sym_parenthesized_expression, STATE 7017), (sym_conditional_expression, STATE 7969),
    (sym_concatenated_string, STATE 7017), (sym_string, STATE 6751), (sym_await, STATE 7017),
    (aux_sym_module_repeat1, STATE 927), (aux_sym_decorated_definition_repeat1, STATE 3670),
    (sym_identifier, ACTIONS 9), (anon_sym_import, ACTIONS 11), (anon_sym_from, ACTIONS 13),
    (anon_sym_LPAREN, ACTIONS 15), (anon_sym_STAR, ACTIONS 17), (anon_sym_print, ACTIONS 19),
    (anon_sym_comptime, ACTIONS 99), (anon_sym_assert, ACTIONS 23),
    (anon_sym___comptime_assert, ACTIONS 25), (anon_sym_return, ACTIONS 27),
    (anon_sym_del, ACTIONS 29), (anon_sym_raise, ACTIONS 31), (anon_sym_pass, ACTIONS 33),
    (anon_sym_break, ACTIONS 35), (anon_sym_continue, ACTIONS 37),
    (anon_sym___extension, ACTIONS 101), (anon_sym___mlir_region, ACTIONS 103),
    (anon_sym_if, ACTIONS 105), (anon_sym_match, ACTIONS 107), (anon_sym_async, ACTIONS 109),
    (anon_sym_for, ACTIONS 111), (anon_sym_while, ACTIONS 113), (anon_sym_try, ACTIONS 115),
    (anon_sym_with, ACTIONS 117), (anon_sym_def, ACTIONS 119), (anon_sym_fn, ACTIONS 119),
    (anon_sym_LBRACK, ACTIONS 59), (anon_sym_LBRACE, ACTIONS 61), (anon_sym_global, ACTIONS 63),
    (anon_sym_nonlocal, ACTIONS 65), (anon_sym_exec, ACTIONS 67), (anon_sym_type, ACTIONS 69),
    (anon_sym_class, ACTIONS 121), (anon_sym_struct, ACTIONS 121), (anon_sym_mut, ACTIONS 73),
    (anon_sym_out, ACTIONS 73), (anon_sym_trait, ACTIONS 123), (anon_sym_AT, ACTIONS 77),
    (anon_sym_DASH, ACTIONS 79), (anon_sym_PLUS, ACTIONS 79), (anon_sym_ref, ACTIONS 81),
    (anon_sym_var, ACTIONS 81), (anon_sym_not, ACTIONS 83), (anon_sym_TILDE, ACTIONS 79),
    (anon_sym_lambda, ACTIONS 85), (anon_sym_yield, ACTIONS 87), (sym_ellipsis, ACTIONS 89),
    (anon_sym___mlir_type, ACTIONS 91), (sym_integer, ACTIONS 93), (sym_float, ACTIONS 89),
    (anon_sym_await, ACTIONS 95), (sym_true, ACTIONS 93), (sym_false, ACTIONS 93),
    (sym_none, ACTIONS 93), (sym_comment, ACTIONS 3), (sym_line_continuation, ACTIONS 3),
    (sym__dedent, ACTIONS 125), (sym_string_start, ACTIONS 97)]"

definition parse_table_562 :: "(nat \<times> nat) list" where "parse_table_562 = [
    (sym__statement, STATE 927), (sym__simple_statements, STATE 927),
    (sym_import_statement, STATE 11814), (sym_future_import_statement, STATE 11814),
    (sym_import_from_statement, STATE 11814), (sym_print_statement, STATE 11814),
    (sym_assert_statement, STATE 11814), (sym_comptime_assert_statement, STATE 11814),
    (sym_expression_statement, STATE 11814), (sym_tuple_expression, STATE 12425),
    (sym_named_expression, STATE 7969), (sym__named_expression_lhs, STATE 12752),
    (sym_return_statement, STATE 11814), (sym_delete_statement, STATE 11814),
    (sym_raise_statement, STATE 11814), (sym_pass_statement, STATE 11814),
    (sym_break_statement, STATE 11814), (sym_continue_statement, STATE 11814),
    (sym_extension_definition, STATE 927), (sym_mlir_region, STATE 927),
    (sym_comptime_statement, STATE 927), (sym_if_statement, STATE 927),
    (sym_match_statement, STATE 927), (sym_for_statement, STATE 927),
    (sym_while_statement, STATE 927), (sym_try_statement, STATE 927),
    (sym_with_statement, STATE 927), (sym_function_definition, STATE 927),
    (sym_global_statement, STATE 11814), (sym_nonlocal_statement, STATE 11814),
    (sym_exec_statement, STATE 11814), (sym_type_alias_statement, STATE 11814),
    (sym_parameterized_alias_statement, STATE 11814), (sym_class_definition, STATE 927),
    (sym_trait_definition, STATE 927), (sym_decorated_definition, STATE 927),
    (sym_decorator, STATE 3670), (sym_block, STATE 5340), (sym_pattern, STATE 8086),
    (sym_tuple_pattern, STATE 8101), (sym_list_pattern, STATE 8101),
    (sym_list_splat_pattern, STATE 6819), (sym_as_pattern, STATE 7969),
    (sym_expression, STATE 9883), (sym_primary_expression, STATE 7326),
    (sym_comptime_expression, STATE 7017), (sym_transfer_expression, STATE 7017),
    (sym_not_operator, STATE 7969), (sym_boolean_operator, STATE 7969),
    (sym_binary_operator, STATE 7017), (sym_unary_operator, STATE 7017),
    (sym_comparison_operator, STATE 7969), (sym_lambda, STATE 7969),
    (sym_assignment, STATE 12425), (sym_augmented_assignment, STATE 12425),
    (sym_pattern_list, STATE 8578), (sym_yield, STATE 12425), (sym_attribute, STATE 6836),
    (sym_subscript, STATE 6838), (sym_call, STATE 6845), (sym_mlir_type, STATE 7017),
    (sym_list, STATE 7017), (sym_set, STATE 7017), (sym_tuple, STATE 7017),
    (sym_dictionary, STATE 7017), (sym_struct_literal, STATE 7017),
    (sym_list_comprehension, STATE 7017), (sym_dictionary_comprehension, STATE 7017),
    (sym_set_comprehension, STATE 7017), (sym_generator_expression, STATE 7017),
    (sym_parenthesized_expression, STATE 7017), (sym_conditional_expression, STATE 7969),
    (sym_concatenated_string, STATE 7017), (sym_string, STATE 6751), (sym_await, STATE 7017),
    (aux_sym_module_repeat1, STATE 927), (aux_sym_decorated_definition_repeat1, STATE 3670),
    (sym_identifier, ACTIONS 9), (anon_sym_import, ACTIONS 11), (anon_sym_from, ACTIONS 13),
    (anon_sym_LPAREN, ACTIONS 15), (anon_sym_STAR, ACTIONS 17), (anon_sym_print, ACTIONS 19),
    (anon_sym_comptime, ACTIONS 99), (anon_sym_assert, ACTIONS 23),
    (anon_sym___comptime_assert, ACTIONS 25), (anon_sym_return, ACTIONS 27),
    (anon_sym_del, ACTIONS 29), (anon_sym_raise, ACTIONS 31), (anon_sym_pass, ACTIONS 33),
    (anon_sym_break, ACTIONS 35), (anon_sym_continue, ACTIONS 37),
    (anon_sym___extension, ACTIONS 101), (anon_sym___mlir_region, ACTIONS 103),
    (anon_sym_if, ACTIONS 105), (anon_sym_match, ACTIONS 107), (anon_sym_async, ACTIONS 109),
    (anon_sym_for, ACTIONS 111), (anon_sym_while, ACTIONS 113), (anon_sym_try, ACTIONS 115),
    (anon_sym_with, ACTIONS 117), (anon_sym_def, ACTIONS 119), (anon_sym_fn, ACTIONS 119),
    (anon_sym_LBRACK, ACTIONS 59), (anon_sym_LBRACE, ACTIONS 61), (anon_sym_global, ACTIONS 63),
    (anon_sym_nonlocal, ACTIONS 65), (anon_sym_exec, ACTIONS 67), (anon_sym_type, ACTIONS 69),
    (anon_sym_class, ACTIONS 121), (anon_sym_struct, ACTIONS 121), (anon_sym_mut, ACTIONS 73),
    (anon_sym_out, ACTIONS 73), (anon_sym_trait, ACTIONS 123), (anon_sym_AT, ACTIONS 77),
    (anon_sym_DASH, ACTIONS 79), (anon_sym_PLUS, ACTIONS 79), (anon_sym_ref, ACTIONS 81),
    (anon_sym_var, ACTIONS 81), (anon_sym_not, ACTIONS 83), (anon_sym_TILDE, ACTIONS 79),
    (anon_sym_lambda, ACTIONS 85), (anon_sym_yield, ACTIONS 87), (sym_ellipsis, ACTIONS 89),
    (anon_sym___mlir_type, ACTIONS 91), (sym_integer, ACTIONS 93), (sym_float, ACTIONS 89),
    (anon_sym_await, ACTIONS 95), (sym_true, ACTIONS 93), (sym_false, ACTIONS 93),
    (sym_none, ACTIONS 93), (sym_comment, ACTIONS 3), (sym_line_continuation, ACTIONS 3),
    (sym__dedent, ACTIONS 125), (sym_string_start, ACTIONS 97)]"

definition parse_table_563 :: "(nat \<times> nat) list" where "parse_table_563 = [
    (sym__statement, STATE 927), (sym__simple_statements, STATE 927),
    (sym_import_statement, STATE 11814), (sym_future_import_statement, STATE 11814),
    (sym_import_from_statement, STATE 11814), (sym_print_statement, STATE 11814),
    (sym_assert_statement, STATE 11814), (sym_comptime_assert_statement, STATE 11814),
    (sym_expression_statement, STATE 11814), (sym_tuple_expression, STATE 12425),
    (sym_named_expression, STATE 7969), (sym__named_expression_lhs, STATE 12752),
    (sym_return_statement, STATE 11814), (sym_delete_statement, STATE 11814),
    (sym_raise_statement, STATE 11814), (sym_pass_statement, STATE 11814),
    (sym_break_statement, STATE 11814), (sym_continue_statement, STATE 11814),
    (sym_extension_definition, STATE 927), (sym_mlir_region, STATE 927),
    (sym_comptime_statement, STATE 927), (sym_if_statement, STATE 927),
    (sym_match_statement, STATE 927), (sym_for_statement, STATE 927),
    (sym_while_statement, STATE 927), (sym_try_statement, STATE 927),
    (sym_with_statement, STATE 927), (sym_function_definition, STATE 927),
    (sym_global_statement, STATE 11814), (sym_nonlocal_statement, STATE 11814),
    (sym_exec_statement, STATE 11814), (sym_type_alias_statement, STATE 11814),
    (sym_parameterized_alias_statement, STATE 11814), (sym_class_definition, STATE 927),
    (sym_trait_definition, STATE 927), (sym_decorated_definition, STATE 927),
    (sym_decorator, STATE 3670), (sym_block, STATE 5363), (sym_pattern, STATE 8086),
    (sym_tuple_pattern, STATE 8101), (sym_list_pattern, STATE 8101),
    (sym_list_splat_pattern, STATE 6819), (sym_as_pattern, STATE 7969),
    (sym_expression, STATE 9883), (sym_primary_expression, STATE 7326),
    (sym_comptime_expression, STATE 7017), (sym_transfer_expression, STATE 7017),
    (sym_not_operator, STATE 7969), (sym_boolean_operator, STATE 7969),
    (sym_binary_operator, STATE 7017), (sym_unary_operator, STATE 7017),
    (sym_comparison_operator, STATE 7969), (sym_lambda, STATE 7969),
    (sym_assignment, STATE 12425), (sym_augmented_assignment, STATE 12425),
    (sym_pattern_list, STATE 8578), (sym_yield, STATE 12425), (sym_attribute, STATE 6836),
    (sym_subscript, STATE 6838), (sym_call, STATE 6845), (sym_mlir_type, STATE 7017),
    (sym_list, STATE 7017), (sym_set, STATE 7017), (sym_tuple, STATE 7017),
    (sym_dictionary, STATE 7017), (sym_struct_literal, STATE 7017),
    (sym_list_comprehension, STATE 7017), (sym_dictionary_comprehension, STATE 7017),
    (sym_set_comprehension, STATE 7017), (sym_generator_expression, STATE 7017),
    (sym_parenthesized_expression, STATE 7017), (sym_conditional_expression, STATE 7969),
    (sym_concatenated_string, STATE 7017), (sym_string, STATE 6751), (sym_await, STATE 7017),
    (aux_sym_module_repeat1, STATE 927), (aux_sym_decorated_definition_repeat1, STATE 3670),
    (sym_identifier, ACTIONS 9), (anon_sym_import, ACTIONS 11), (anon_sym_from, ACTIONS 13),
    (anon_sym_LPAREN, ACTIONS 15), (anon_sym_STAR, ACTIONS 17), (anon_sym_print, ACTIONS 19),
    (anon_sym_comptime, ACTIONS 99), (anon_sym_assert, ACTIONS 23),
    (anon_sym___comptime_assert, ACTIONS 25), (anon_sym_return, ACTIONS 27),
    (anon_sym_del, ACTIONS 29), (anon_sym_raise, ACTIONS 31), (anon_sym_pass, ACTIONS 33),
    (anon_sym_break, ACTIONS 35), (anon_sym_continue, ACTIONS 37),
    (anon_sym___extension, ACTIONS 101), (anon_sym___mlir_region, ACTIONS 103),
    (anon_sym_if, ACTIONS 105), (anon_sym_match, ACTIONS 107), (anon_sym_async, ACTIONS 109),
    (anon_sym_for, ACTIONS 111), (anon_sym_while, ACTIONS 113), (anon_sym_try, ACTIONS 115),
    (anon_sym_with, ACTIONS 117), (anon_sym_def, ACTIONS 119), (anon_sym_fn, ACTIONS 119),
    (anon_sym_LBRACK, ACTIONS 59), (anon_sym_LBRACE, ACTIONS 61), (anon_sym_global, ACTIONS 63),
    (anon_sym_nonlocal, ACTIONS 65), (anon_sym_exec, ACTIONS 67), (anon_sym_type, ACTIONS 69),
    (anon_sym_class, ACTIONS 121), (anon_sym_struct, ACTIONS 121), (anon_sym_mut, ACTIONS 73),
    (anon_sym_out, ACTIONS 73), (anon_sym_trait, ACTIONS 123), (anon_sym_AT, ACTIONS 77),
    (anon_sym_DASH, ACTIONS 79), (anon_sym_PLUS, ACTIONS 79), (anon_sym_ref, ACTIONS 81),
    (anon_sym_var, ACTIONS 81), (anon_sym_not, ACTIONS 83), (anon_sym_TILDE, ACTIONS 79),
    (anon_sym_lambda, ACTIONS 85), (anon_sym_yield, ACTIONS 87), (sym_ellipsis, ACTIONS 89),
    (anon_sym___mlir_type, ACTIONS 91), (sym_integer, ACTIONS 93), (sym_float, ACTIONS 89),
    (anon_sym_await, ACTIONS 95), (sym_true, ACTIONS 93), (sym_false, ACTIONS 93),
    (sym_none, ACTIONS 93), (sym_comment, ACTIONS 3), (sym_line_continuation, ACTIONS 3),
    (sym__dedent, ACTIONS 125), (sym_string_start, ACTIONS 97)]"

definition parse_table_564 :: "(nat \<times> nat) list" where "parse_table_564 = [
    (sym__statement, STATE 927), (sym__simple_statements, STATE 927),
    (sym_import_statement, STATE 11814), (sym_future_import_statement, STATE 11814),
    (sym_import_from_statement, STATE 11814), (sym_print_statement, STATE 11814),
    (sym_assert_statement, STATE 11814), (sym_comptime_assert_statement, STATE 11814),
    (sym_expression_statement, STATE 11814), (sym_tuple_expression, STATE 12425),
    (sym_named_expression, STATE 7969), (sym__named_expression_lhs, STATE 12752),
    (sym_return_statement, STATE 11814), (sym_delete_statement, STATE 11814),
    (sym_raise_statement, STATE 11814), (sym_pass_statement, STATE 11814),
    (sym_break_statement, STATE 11814), (sym_continue_statement, STATE 11814),
    (sym_extension_definition, STATE 927), (sym_mlir_region, STATE 927),
    (sym_comptime_statement, STATE 927), (sym_if_statement, STATE 927),
    (sym_match_statement, STATE 927), (sym_for_statement, STATE 927),
    (sym_while_statement, STATE 927), (sym_try_statement, STATE 927),
    (sym_with_statement, STATE 927), (sym_function_definition, STATE 927),
    (sym_global_statement, STATE 11814), (sym_nonlocal_statement, STATE 11814),
    (sym_exec_statement, STATE 11814), (sym_type_alias_statement, STATE 11814),
    (sym_parameterized_alias_statement, STATE 11814), (sym_class_definition, STATE 927),
    (sym_trait_definition, STATE 927), (sym_decorated_definition, STATE 927),
    (sym_decorator, STATE 3670), (sym_block, STATE 5371), (sym_pattern, STATE 8086),
    (sym_tuple_pattern, STATE 8101), (sym_list_pattern, STATE 8101),
    (sym_list_splat_pattern, STATE 6819), (sym_as_pattern, STATE 7969),
    (sym_expression, STATE 9883), (sym_primary_expression, STATE 7326),
    (sym_comptime_expression, STATE 7017), (sym_transfer_expression, STATE 7017),
    (sym_not_operator, STATE 7969), (sym_boolean_operator, STATE 7969),
    (sym_binary_operator, STATE 7017), (sym_unary_operator, STATE 7017),
    (sym_comparison_operator, STATE 7969), (sym_lambda, STATE 7969),
    (sym_assignment, STATE 12425), (sym_augmented_assignment, STATE 12425),
    (sym_pattern_list, STATE 8578), (sym_yield, STATE 12425), (sym_attribute, STATE 6836),
    (sym_subscript, STATE 6838), (sym_call, STATE 6845), (sym_mlir_type, STATE 7017),
    (sym_list, STATE 7017), (sym_set, STATE 7017), (sym_tuple, STATE 7017),
    (sym_dictionary, STATE 7017), (sym_struct_literal, STATE 7017),
    (sym_list_comprehension, STATE 7017), (sym_dictionary_comprehension, STATE 7017),
    (sym_set_comprehension, STATE 7017), (sym_generator_expression, STATE 7017),
    (sym_parenthesized_expression, STATE 7017), (sym_conditional_expression, STATE 7969),
    (sym_concatenated_string, STATE 7017), (sym_string, STATE 6751), (sym_await, STATE 7017),
    (aux_sym_module_repeat1, STATE 927), (aux_sym_decorated_definition_repeat1, STATE 3670),
    (sym_identifier, ACTIONS 9), (anon_sym_import, ACTIONS 11), (anon_sym_from, ACTIONS 13),
    (anon_sym_LPAREN, ACTIONS 15), (anon_sym_STAR, ACTIONS 17), (anon_sym_print, ACTIONS 19),
    (anon_sym_comptime, ACTIONS 99), (anon_sym_assert, ACTIONS 23),
    (anon_sym___comptime_assert, ACTIONS 25), (anon_sym_return, ACTIONS 27),
    (anon_sym_del, ACTIONS 29), (anon_sym_raise, ACTIONS 31), (anon_sym_pass, ACTIONS 33),
    (anon_sym_break, ACTIONS 35), (anon_sym_continue, ACTIONS 37),
    (anon_sym___extension, ACTIONS 101), (anon_sym___mlir_region, ACTIONS 103),
    (anon_sym_if, ACTIONS 105), (anon_sym_match, ACTIONS 107), (anon_sym_async, ACTIONS 109),
    (anon_sym_for, ACTIONS 111), (anon_sym_while, ACTIONS 113), (anon_sym_try, ACTIONS 115),
    (anon_sym_with, ACTIONS 117), (anon_sym_def, ACTIONS 119), (anon_sym_fn, ACTIONS 119),
    (anon_sym_LBRACK, ACTIONS 59), (anon_sym_LBRACE, ACTIONS 61), (anon_sym_global, ACTIONS 63),
    (anon_sym_nonlocal, ACTIONS 65), (anon_sym_exec, ACTIONS 67), (anon_sym_type, ACTIONS 69),
    (anon_sym_class, ACTIONS 121), (anon_sym_struct, ACTIONS 121), (anon_sym_mut, ACTIONS 73),
    (anon_sym_out, ACTIONS 73), (anon_sym_trait, ACTIONS 123), (anon_sym_AT, ACTIONS 77),
    (anon_sym_DASH, ACTIONS 79), (anon_sym_PLUS, ACTIONS 79), (anon_sym_ref, ACTIONS 81),
    (anon_sym_var, ACTIONS 81), (anon_sym_not, ACTIONS 83), (anon_sym_TILDE, ACTIONS 79),
    (anon_sym_lambda, ACTIONS 85), (anon_sym_yield, ACTIONS 87), (sym_ellipsis, ACTIONS 89),
    (anon_sym___mlir_type, ACTIONS 91), (sym_integer, ACTIONS 93), (sym_float, ACTIONS 89),
    (anon_sym_await, ACTIONS 95), (sym_true, ACTIONS 93), (sym_false, ACTIONS 93),
    (sym_none, ACTIONS 93), (sym_comment, ACTIONS 3), (sym_line_continuation, ACTIONS 3),
    (sym__dedent, ACTIONS 125), (sym_string_start, ACTIONS 97)]"

definition parse_table_565 :: "(nat \<times> nat) list" where "parse_table_565 = [
    (sym__statement, STATE 927), (sym__simple_statements, STATE 927),
    (sym_import_statement, STATE 11814), (sym_future_import_statement, STATE 11814),
    (sym_import_from_statement, STATE 11814), (sym_print_statement, STATE 11814),
    (sym_assert_statement, STATE 11814), (sym_comptime_assert_statement, STATE 11814),
    (sym_expression_statement, STATE 11814), (sym_tuple_expression, STATE 12425),
    (sym_named_expression, STATE 7969), (sym__named_expression_lhs, STATE 12752),
    (sym_return_statement, STATE 11814), (sym_delete_statement, STATE 11814),
    (sym_raise_statement, STATE 11814), (sym_pass_statement, STATE 11814),
    (sym_break_statement, STATE 11814), (sym_continue_statement, STATE 11814),
    (sym_extension_definition, STATE 927), (sym_mlir_region, STATE 927),
    (sym_comptime_statement, STATE 927), (sym_if_statement, STATE 927),
    (sym_match_statement, STATE 927), (sym_for_statement, STATE 927),
    (sym_while_statement, STATE 927), (sym_try_statement, STATE 927),
    (sym_with_statement, STATE 927), (sym_function_definition, STATE 927),
    (sym_global_statement, STATE 11814), (sym_nonlocal_statement, STATE 11814),
    (sym_exec_statement, STATE 11814), (sym_type_alias_statement, STATE 11814),
    (sym_parameterized_alias_statement, STATE 11814), (sym_class_definition, STATE 927),
    (sym_trait_definition, STATE 927), (sym_decorated_definition, STATE 927),
    (sym_decorator, STATE 3670), (sym_block, STATE 5376), (sym_pattern, STATE 8086),
    (sym_tuple_pattern, STATE 8101), (sym_list_pattern, STATE 8101),
    (sym_list_splat_pattern, STATE 6819), (sym_as_pattern, STATE 7969),
    (sym_expression, STATE 9883), (sym_primary_expression, STATE 7326),
    (sym_comptime_expression, STATE 7017), (sym_transfer_expression, STATE 7017),
    (sym_not_operator, STATE 7969), (sym_boolean_operator, STATE 7969),
    (sym_binary_operator, STATE 7017), (sym_unary_operator, STATE 7017),
    (sym_comparison_operator, STATE 7969), (sym_lambda, STATE 7969),
    (sym_assignment, STATE 12425), (sym_augmented_assignment, STATE 12425),
    (sym_pattern_list, STATE 8578), (sym_yield, STATE 12425), (sym_attribute, STATE 6836),
    (sym_subscript, STATE 6838), (sym_call, STATE 6845), (sym_mlir_type, STATE 7017),
    (sym_list, STATE 7017), (sym_set, STATE 7017), (sym_tuple, STATE 7017),
    (sym_dictionary, STATE 7017), (sym_struct_literal, STATE 7017),
    (sym_list_comprehension, STATE 7017), (sym_dictionary_comprehension, STATE 7017),
    (sym_set_comprehension, STATE 7017), (sym_generator_expression, STATE 7017),
    (sym_parenthesized_expression, STATE 7017), (sym_conditional_expression, STATE 7969),
    (sym_concatenated_string, STATE 7017), (sym_string, STATE 6751), (sym_await, STATE 7017),
    (aux_sym_module_repeat1, STATE 927), (aux_sym_decorated_definition_repeat1, STATE 3670),
    (sym_identifier, ACTIONS 9), (anon_sym_import, ACTIONS 11), (anon_sym_from, ACTIONS 13),
    (anon_sym_LPAREN, ACTIONS 15), (anon_sym_STAR, ACTIONS 17), (anon_sym_print, ACTIONS 19),
    (anon_sym_comptime, ACTIONS 99), (anon_sym_assert, ACTIONS 23),
    (anon_sym___comptime_assert, ACTIONS 25), (anon_sym_return, ACTIONS 27),
    (anon_sym_del, ACTIONS 29), (anon_sym_raise, ACTIONS 31), (anon_sym_pass, ACTIONS 33),
    (anon_sym_break, ACTIONS 35), (anon_sym_continue, ACTIONS 37),
    (anon_sym___extension, ACTIONS 101), (anon_sym___mlir_region, ACTIONS 103),
    (anon_sym_if, ACTIONS 105), (anon_sym_match, ACTIONS 107), (anon_sym_async, ACTIONS 109),
    (anon_sym_for, ACTIONS 111), (anon_sym_while, ACTIONS 113), (anon_sym_try, ACTIONS 115),
    (anon_sym_with, ACTIONS 117), (anon_sym_def, ACTIONS 119), (anon_sym_fn, ACTIONS 119),
    (anon_sym_LBRACK, ACTIONS 59), (anon_sym_LBRACE, ACTIONS 61), (anon_sym_global, ACTIONS 63),
    (anon_sym_nonlocal, ACTIONS 65), (anon_sym_exec, ACTIONS 67), (anon_sym_type, ACTIONS 69),
    (anon_sym_class, ACTIONS 121), (anon_sym_struct, ACTIONS 121), (anon_sym_mut, ACTIONS 73),
    (anon_sym_out, ACTIONS 73), (anon_sym_trait, ACTIONS 123), (anon_sym_AT, ACTIONS 77),
    (anon_sym_DASH, ACTIONS 79), (anon_sym_PLUS, ACTIONS 79), (anon_sym_ref, ACTIONS 81),
    (anon_sym_var, ACTIONS 81), (anon_sym_not, ACTIONS 83), (anon_sym_TILDE, ACTIONS 79),
    (anon_sym_lambda, ACTIONS 85), (anon_sym_yield, ACTIONS 87), (sym_ellipsis, ACTIONS 89),
    (anon_sym___mlir_type, ACTIONS 91), (sym_integer, ACTIONS 93), (sym_float, ACTIONS 89),
    (anon_sym_await, ACTIONS 95), (sym_true, ACTIONS 93), (sym_false, ACTIONS 93),
    (sym_none, ACTIONS 93), (sym_comment, ACTIONS 3), (sym_line_continuation, ACTIONS 3),
    (sym__dedent, ACTIONS 125), (sym_string_start, ACTIONS 97)]"

definition parse_table_566 :: "(nat \<times> nat) list" where "parse_table_566 = [
    (sym__statement, STATE 927), (sym__simple_statements, STATE 927),
    (sym_import_statement, STATE 11814), (sym_future_import_statement, STATE 11814),
    (sym_import_from_statement, STATE 11814), (sym_print_statement, STATE 11814),
    (sym_assert_statement, STATE 11814), (sym_comptime_assert_statement, STATE 11814),
    (sym_expression_statement, STATE 11814), (sym_tuple_expression, STATE 12425),
    (sym_named_expression, STATE 7969), (sym__named_expression_lhs, STATE 12752),
    (sym_return_statement, STATE 11814), (sym_delete_statement, STATE 11814),
    (sym_raise_statement, STATE 11814), (sym_pass_statement, STATE 11814),
    (sym_break_statement, STATE 11814), (sym_continue_statement, STATE 11814),
    (sym_extension_definition, STATE 927), (sym_mlir_region, STATE 927),
    (sym_comptime_statement, STATE 927), (sym_if_statement, STATE 927),
    (sym_match_statement, STATE 927), (sym_for_statement, STATE 927),
    (sym_while_statement, STATE 927), (sym_try_statement, STATE 927),
    (sym_with_statement, STATE 927), (sym_function_definition, STATE 927),
    (sym_global_statement, STATE 11814), (sym_nonlocal_statement, STATE 11814),
    (sym_exec_statement, STATE 11814), (sym_type_alias_statement, STATE 11814),
    (sym_parameterized_alias_statement, STATE 11814), (sym_class_definition, STATE 927),
    (sym_trait_definition, STATE 927), (sym_decorated_definition, STATE 927),
    (sym_decorator, STATE 3670), (sym_block, STATE 5399), (sym_pattern, STATE 8086),
    (sym_tuple_pattern, STATE 8101), (sym_list_pattern, STATE 8101),
    (sym_list_splat_pattern, STATE 6819), (sym_as_pattern, STATE 7969),
    (sym_expression, STATE 9883), (sym_primary_expression, STATE 7326),
    (sym_comptime_expression, STATE 7017), (sym_transfer_expression, STATE 7017),
    (sym_not_operator, STATE 7969), (sym_boolean_operator, STATE 7969),
    (sym_binary_operator, STATE 7017), (sym_unary_operator, STATE 7017),
    (sym_comparison_operator, STATE 7969), (sym_lambda, STATE 7969),
    (sym_assignment, STATE 12425), (sym_augmented_assignment, STATE 12425),
    (sym_pattern_list, STATE 8578), (sym_yield, STATE 12425), (sym_attribute, STATE 6836),
    (sym_subscript, STATE 6838), (sym_call, STATE 6845), (sym_mlir_type, STATE 7017),
    (sym_list, STATE 7017), (sym_set, STATE 7017), (sym_tuple, STATE 7017),
    (sym_dictionary, STATE 7017), (sym_struct_literal, STATE 7017),
    (sym_list_comprehension, STATE 7017), (sym_dictionary_comprehension, STATE 7017),
    (sym_set_comprehension, STATE 7017), (sym_generator_expression, STATE 7017),
    (sym_parenthesized_expression, STATE 7017), (sym_conditional_expression, STATE 7969),
    (sym_concatenated_string, STATE 7017), (sym_string, STATE 6751), (sym_await, STATE 7017),
    (aux_sym_module_repeat1, STATE 927), (aux_sym_decorated_definition_repeat1, STATE 3670),
    (sym_identifier, ACTIONS 9), (anon_sym_import, ACTIONS 11), (anon_sym_from, ACTIONS 13),
    (anon_sym_LPAREN, ACTIONS 15), (anon_sym_STAR, ACTIONS 17), (anon_sym_print, ACTIONS 19),
    (anon_sym_comptime, ACTIONS 99), (anon_sym_assert, ACTIONS 23),
    (anon_sym___comptime_assert, ACTIONS 25), (anon_sym_return, ACTIONS 27),
    (anon_sym_del, ACTIONS 29), (anon_sym_raise, ACTIONS 31), (anon_sym_pass, ACTIONS 33),
    (anon_sym_break, ACTIONS 35), (anon_sym_continue, ACTIONS 37),
    (anon_sym___extension, ACTIONS 101), (anon_sym___mlir_region, ACTIONS 103),
    (anon_sym_if, ACTIONS 105), (anon_sym_match, ACTIONS 107), (anon_sym_async, ACTIONS 109),
    (anon_sym_for, ACTIONS 111), (anon_sym_while, ACTIONS 113), (anon_sym_try, ACTIONS 115),
    (anon_sym_with, ACTIONS 117), (anon_sym_def, ACTIONS 119), (anon_sym_fn, ACTIONS 119),
    (anon_sym_LBRACK, ACTIONS 59), (anon_sym_LBRACE, ACTIONS 61), (anon_sym_global, ACTIONS 63),
    (anon_sym_nonlocal, ACTIONS 65), (anon_sym_exec, ACTIONS 67), (anon_sym_type, ACTIONS 69),
    (anon_sym_class, ACTIONS 121), (anon_sym_struct, ACTIONS 121), (anon_sym_mut, ACTIONS 73),
    (anon_sym_out, ACTIONS 73), (anon_sym_trait, ACTIONS 123), (anon_sym_AT, ACTIONS 77),
    (anon_sym_DASH, ACTIONS 79), (anon_sym_PLUS, ACTIONS 79), (anon_sym_ref, ACTIONS 81),
    (anon_sym_var, ACTIONS 81), (anon_sym_not, ACTIONS 83), (anon_sym_TILDE, ACTIONS 79),
    (anon_sym_lambda, ACTIONS 85), (anon_sym_yield, ACTIONS 87), (sym_ellipsis, ACTIONS 89),
    (anon_sym___mlir_type, ACTIONS 91), (sym_integer, ACTIONS 93), (sym_float, ACTIONS 89),
    (anon_sym_await, ACTIONS 95), (sym_true, ACTIONS 93), (sym_false, ACTIONS 93),
    (sym_none, ACTIONS 93), (sym_comment, ACTIONS 3), (sym_line_continuation, ACTIONS 3),
    (sym__dedent, ACTIONS 125), (sym_string_start, ACTIONS 97)]"

definition parse_table_567 :: "(nat \<times> nat) list" where "parse_table_567 = [
    (sym__statement, STATE 927), (sym__simple_statements, STATE 927),
    (sym_import_statement, STATE 11814), (sym_future_import_statement, STATE 11814),
    (sym_import_from_statement, STATE 11814), (sym_print_statement, STATE 11814),
    (sym_assert_statement, STATE 11814), (sym_comptime_assert_statement, STATE 11814),
    (sym_expression_statement, STATE 11814), (sym_tuple_expression, STATE 12425),
    (sym_named_expression, STATE 7969), (sym__named_expression_lhs, STATE 12752),
    (sym_return_statement, STATE 11814), (sym_delete_statement, STATE 11814),
    (sym_raise_statement, STATE 11814), (sym_pass_statement, STATE 11814),
    (sym_break_statement, STATE 11814), (sym_continue_statement, STATE 11814),
    (sym_extension_definition, STATE 927), (sym_mlir_region, STATE 927),
    (sym_comptime_statement, STATE 927), (sym_if_statement, STATE 927),
    (sym_match_statement, STATE 927), (sym_for_statement, STATE 927),
    (sym_while_statement, STATE 927), (sym_try_statement, STATE 927),
    (sym_with_statement, STATE 927), (sym_function_definition, STATE 927),
    (sym_global_statement, STATE 11814), (sym_nonlocal_statement, STATE 11814),
    (sym_exec_statement, STATE 11814), (sym_type_alias_statement, STATE 11814),
    (sym_parameterized_alias_statement, STATE 11814), (sym_class_definition, STATE 927),
    (sym_trait_definition, STATE 927), (sym_decorated_definition, STATE 927),
    (sym_decorator, STATE 3670), (sym_block, STATE 5413), (sym_pattern, STATE 8086),
    (sym_tuple_pattern, STATE 8101), (sym_list_pattern, STATE 8101),
    (sym_list_splat_pattern, STATE 6819), (sym_as_pattern, STATE 7969),
    (sym_expression, STATE 9883), (sym_primary_expression, STATE 7326),
    (sym_comptime_expression, STATE 7017), (sym_transfer_expression, STATE 7017),
    (sym_not_operator, STATE 7969), (sym_boolean_operator, STATE 7969),
    (sym_binary_operator, STATE 7017), (sym_unary_operator, STATE 7017),
    (sym_comparison_operator, STATE 7969), (sym_lambda, STATE 7969),
    (sym_assignment, STATE 12425), (sym_augmented_assignment, STATE 12425),
    (sym_pattern_list, STATE 8578), (sym_yield, STATE 12425), (sym_attribute, STATE 6836),
    (sym_subscript, STATE 6838), (sym_call, STATE 6845), (sym_mlir_type, STATE 7017),
    (sym_list, STATE 7017), (sym_set, STATE 7017), (sym_tuple, STATE 7017),
    (sym_dictionary, STATE 7017), (sym_struct_literal, STATE 7017),
    (sym_list_comprehension, STATE 7017), (sym_dictionary_comprehension, STATE 7017),
    (sym_set_comprehension, STATE 7017), (sym_generator_expression, STATE 7017),
    (sym_parenthesized_expression, STATE 7017), (sym_conditional_expression, STATE 7969),
    (sym_concatenated_string, STATE 7017), (sym_string, STATE 6751), (sym_await, STATE 7017),
    (aux_sym_module_repeat1, STATE 927), (aux_sym_decorated_definition_repeat1, STATE 3670),
    (sym_identifier, ACTIONS 9), (anon_sym_import, ACTIONS 11), (anon_sym_from, ACTIONS 13),
    (anon_sym_LPAREN, ACTIONS 15), (anon_sym_STAR, ACTIONS 17), (anon_sym_print, ACTIONS 19),
    (anon_sym_comptime, ACTIONS 99), (anon_sym_assert, ACTIONS 23),
    (anon_sym___comptime_assert, ACTIONS 25), (anon_sym_return, ACTIONS 27),
    (anon_sym_del, ACTIONS 29), (anon_sym_raise, ACTIONS 31), (anon_sym_pass, ACTIONS 33),
    (anon_sym_break, ACTIONS 35), (anon_sym_continue, ACTIONS 37),
    (anon_sym___extension, ACTIONS 101), (anon_sym___mlir_region, ACTIONS 103),
    (anon_sym_if, ACTIONS 105), (anon_sym_match, ACTIONS 107), (anon_sym_async, ACTIONS 109),
    (anon_sym_for, ACTIONS 111), (anon_sym_while, ACTIONS 113), (anon_sym_try, ACTIONS 115),
    (anon_sym_with, ACTIONS 117), (anon_sym_def, ACTIONS 119), (anon_sym_fn, ACTIONS 119),
    (anon_sym_LBRACK, ACTIONS 59), (anon_sym_LBRACE, ACTIONS 61), (anon_sym_global, ACTIONS 63),
    (anon_sym_nonlocal, ACTIONS 65), (anon_sym_exec, ACTIONS 67), (anon_sym_type, ACTIONS 69),
    (anon_sym_class, ACTIONS 121), (anon_sym_struct, ACTIONS 121), (anon_sym_mut, ACTIONS 73),
    (anon_sym_out, ACTIONS 73), (anon_sym_trait, ACTIONS 123), (anon_sym_AT, ACTIONS 77),
    (anon_sym_DASH, ACTIONS 79), (anon_sym_PLUS, ACTIONS 79), (anon_sym_ref, ACTIONS 81),
    (anon_sym_var, ACTIONS 81), (anon_sym_not, ACTIONS 83), (anon_sym_TILDE, ACTIONS 79),
    (anon_sym_lambda, ACTIONS 85), (anon_sym_yield, ACTIONS 87), (sym_ellipsis, ACTIONS 89),
    (anon_sym___mlir_type, ACTIONS 91), (sym_integer, ACTIONS 93), (sym_float, ACTIONS 89),
    (anon_sym_await, ACTIONS 95), (sym_true, ACTIONS 93), (sym_false, ACTIONS 93),
    (sym_none, ACTIONS 93), (sym_comment, ACTIONS 3), (sym_line_continuation, ACTIONS 3),
    (sym__dedent, ACTIONS 125), (sym_string_start, ACTIONS 97)]"

definition parse_table_568 :: "(nat \<times> nat) list" where "parse_table_568 = [
    (sym__statement, STATE 927), (sym__simple_statements, STATE 927),
    (sym_import_statement, STATE 11814), (sym_future_import_statement, STATE 11814),
    (sym_import_from_statement, STATE 11814), (sym_print_statement, STATE 11814),
    (sym_assert_statement, STATE 11814), (sym_comptime_assert_statement, STATE 11814),
    (sym_expression_statement, STATE 11814), (sym_tuple_expression, STATE 12425),
    (sym_named_expression, STATE 7969), (sym__named_expression_lhs, STATE 12752),
    (sym_return_statement, STATE 11814), (sym_delete_statement, STATE 11814),
    (sym_raise_statement, STATE 11814), (sym_pass_statement, STATE 11814),
    (sym_break_statement, STATE 11814), (sym_continue_statement, STATE 11814),
    (sym_extension_definition, STATE 927), (sym_mlir_region, STATE 927),
    (sym_comptime_statement, STATE 927), (sym_if_statement, STATE 927),
    (sym_match_statement, STATE 927), (sym_for_statement, STATE 927),
    (sym_while_statement, STATE 927), (sym_try_statement, STATE 927),
    (sym_with_statement, STATE 927), (sym_function_definition, STATE 927),
    (sym_global_statement, STATE 11814), (sym_nonlocal_statement, STATE 11814),
    (sym_exec_statement, STATE 11814), (sym_type_alias_statement, STATE 11814),
    (sym_parameterized_alias_statement, STATE 11814), (sym_class_definition, STATE 927),
    (sym_trait_definition, STATE 927), (sym_decorated_definition, STATE 927),
    (sym_decorator, STATE 3670), (sym_block, STATE 5441), (sym_pattern, STATE 8086),
    (sym_tuple_pattern, STATE 8101), (sym_list_pattern, STATE 8101),
    (sym_list_splat_pattern, STATE 6819), (sym_as_pattern, STATE 7969),
    (sym_expression, STATE 9883), (sym_primary_expression, STATE 7326),
    (sym_comptime_expression, STATE 7017), (sym_transfer_expression, STATE 7017),
    (sym_not_operator, STATE 7969), (sym_boolean_operator, STATE 7969),
    (sym_binary_operator, STATE 7017), (sym_unary_operator, STATE 7017),
    (sym_comparison_operator, STATE 7969), (sym_lambda, STATE 7969),
    (sym_assignment, STATE 12425), (sym_augmented_assignment, STATE 12425),
    (sym_pattern_list, STATE 8578), (sym_yield, STATE 12425), (sym_attribute, STATE 6836),
    (sym_subscript, STATE 6838), (sym_call, STATE 6845), (sym_mlir_type, STATE 7017),
    (sym_list, STATE 7017), (sym_set, STATE 7017), (sym_tuple, STATE 7017),
    (sym_dictionary, STATE 7017), (sym_struct_literal, STATE 7017),
    (sym_list_comprehension, STATE 7017), (sym_dictionary_comprehension, STATE 7017),
    (sym_set_comprehension, STATE 7017), (sym_generator_expression, STATE 7017),
    (sym_parenthesized_expression, STATE 7017), (sym_conditional_expression, STATE 7969),
    (sym_concatenated_string, STATE 7017), (sym_string, STATE 6751), (sym_await, STATE 7017),
    (aux_sym_module_repeat1, STATE 927), (aux_sym_decorated_definition_repeat1, STATE 3670),
    (sym_identifier, ACTIONS 9), (anon_sym_import, ACTIONS 11), (anon_sym_from, ACTIONS 13),
    (anon_sym_LPAREN, ACTIONS 15), (anon_sym_STAR, ACTIONS 17), (anon_sym_print, ACTIONS 19),
    (anon_sym_comptime, ACTIONS 99), (anon_sym_assert, ACTIONS 23),
    (anon_sym___comptime_assert, ACTIONS 25), (anon_sym_return, ACTIONS 27),
    (anon_sym_del, ACTIONS 29), (anon_sym_raise, ACTIONS 31), (anon_sym_pass, ACTIONS 33),
    (anon_sym_break, ACTIONS 35), (anon_sym_continue, ACTIONS 37),
    (anon_sym___extension, ACTIONS 101), (anon_sym___mlir_region, ACTIONS 103),
    (anon_sym_if, ACTIONS 105), (anon_sym_match, ACTIONS 107), (anon_sym_async, ACTIONS 109),
    (anon_sym_for, ACTIONS 111), (anon_sym_while, ACTIONS 113), (anon_sym_try, ACTIONS 115),
    (anon_sym_with, ACTIONS 117), (anon_sym_def, ACTIONS 119), (anon_sym_fn, ACTIONS 119),
    (anon_sym_LBRACK, ACTIONS 59), (anon_sym_LBRACE, ACTIONS 61), (anon_sym_global, ACTIONS 63),
    (anon_sym_nonlocal, ACTIONS 65), (anon_sym_exec, ACTIONS 67), (anon_sym_type, ACTIONS 69),
    (anon_sym_class, ACTIONS 121), (anon_sym_struct, ACTIONS 121), (anon_sym_mut, ACTIONS 73),
    (anon_sym_out, ACTIONS 73), (anon_sym_trait, ACTIONS 123), (anon_sym_AT, ACTIONS 77),
    (anon_sym_DASH, ACTIONS 79), (anon_sym_PLUS, ACTIONS 79), (anon_sym_ref, ACTIONS 81),
    (anon_sym_var, ACTIONS 81), (anon_sym_not, ACTIONS 83), (anon_sym_TILDE, ACTIONS 79),
    (anon_sym_lambda, ACTIONS 85), (anon_sym_yield, ACTIONS 87), (sym_ellipsis, ACTIONS 89),
    (anon_sym___mlir_type, ACTIONS 91), (sym_integer, ACTIONS 93), (sym_float, ACTIONS 89),
    (anon_sym_await, ACTIONS 95), (sym_true, ACTIONS 93), (sym_false, ACTIONS 93),
    (sym_none, ACTIONS 93), (sym_comment, ACTIONS 3), (sym_line_continuation, ACTIONS 3),
    (sym__dedent, ACTIONS 125), (sym_string_start, ACTIONS 97)]"

definition parse_table_569 :: "(nat \<times> nat) list" where "parse_table_569 = [
    (sym__statement, STATE 927), (sym__simple_statements, STATE 927),
    (sym_import_statement, STATE 11814), (sym_future_import_statement, STATE 11814),
    (sym_import_from_statement, STATE 11814), (sym_print_statement, STATE 11814),
    (sym_assert_statement, STATE 11814), (sym_comptime_assert_statement, STATE 11814),
    (sym_expression_statement, STATE 11814), (sym_tuple_expression, STATE 12425),
    (sym_named_expression, STATE 7969), (sym__named_expression_lhs, STATE 12752),
    (sym_return_statement, STATE 11814), (sym_delete_statement, STATE 11814),
    (sym_raise_statement, STATE 11814), (sym_pass_statement, STATE 11814),
    (sym_break_statement, STATE 11814), (sym_continue_statement, STATE 11814),
    (sym_extension_definition, STATE 927), (sym_mlir_region, STATE 927),
    (sym_comptime_statement, STATE 927), (sym_if_statement, STATE 927),
    (sym_match_statement, STATE 927), (sym_for_statement, STATE 927),
    (sym_while_statement, STATE 927), (sym_try_statement, STATE 927),
    (sym_with_statement, STATE 927), (sym_function_definition, STATE 927),
    (sym_global_statement, STATE 11814), (sym_nonlocal_statement, STATE 11814),
    (sym_exec_statement, STATE 11814), (sym_type_alias_statement, STATE 11814),
    (sym_parameterized_alias_statement, STATE 11814), (sym_class_definition, STATE 927),
    (sym_trait_definition, STATE 927), (sym_decorated_definition, STATE 927),
    (sym_decorator, STATE 3670), (sym_block, STATE 5445), (sym_pattern, STATE 8086),
    (sym_tuple_pattern, STATE 8101), (sym_list_pattern, STATE 8101),
    (sym_list_splat_pattern, STATE 6819), (sym_as_pattern, STATE 7969),
    (sym_expression, STATE 9883), (sym_primary_expression, STATE 7326),
    (sym_comptime_expression, STATE 7017), (sym_transfer_expression, STATE 7017),
    (sym_not_operator, STATE 7969), (sym_boolean_operator, STATE 7969),
    (sym_binary_operator, STATE 7017), (sym_unary_operator, STATE 7017),
    (sym_comparison_operator, STATE 7969), (sym_lambda, STATE 7969),
    (sym_assignment, STATE 12425), (sym_augmented_assignment, STATE 12425),
    (sym_pattern_list, STATE 8578), (sym_yield, STATE 12425), (sym_attribute, STATE 6836),
    (sym_subscript, STATE 6838), (sym_call, STATE 6845), (sym_mlir_type, STATE 7017),
    (sym_list, STATE 7017), (sym_set, STATE 7017), (sym_tuple, STATE 7017),
    (sym_dictionary, STATE 7017), (sym_struct_literal, STATE 7017),
    (sym_list_comprehension, STATE 7017), (sym_dictionary_comprehension, STATE 7017),
    (sym_set_comprehension, STATE 7017), (sym_generator_expression, STATE 7017),
    (sym_parenthesized_expression, STATE 7017), (sym_conditional_expression, STATE 7969),
    (sym_concatenated_string, STATE 7017), (sym_string, STATE 6751), (sym_await, STATE 7017),
    (aux_sym_module_repeat1, STATE 927), (aux_sym_decorated_definition_repeat1, STATE 3670),
    (sym_identifier, ACTIONS 9), (anon_sym_import, ACTIONS 11), (anon_sym_from, ACTIONS 13),
    (anon_sym_LPAREN, ACTIONS 15), (anon_sym_STAR, ACTIONS 17), (anon_sym_print, ACTIONS 19),
    (anon_sym_comptime, ACTIONS 99), (anon_sym_assert, ACTIONS 23),
    (anon_sym___comptime_assert, ACTIONS 25), (anon_sym_return, ACTIONS 27),
    (anon_sym_del, ACTIONS 29), (anon_sym_raise, ACTIONS 31), (anon_sym_pass, ACTIONS 33),
    (anon_sym_break, ACTIONS 35), (anon_sym_continue, ACTIONS 37),
    (anon_sym___extension, ACTIONS 101), (anon_sym___mlir_region, ACTIONS 103),
    (anon_sym_if, ACTIONS 105), (anon_sym_match, ACTIONS 107), (anon_sym_async, ACTIONS 109),
    (anon_sym_for, ACTIONS 111), (anon_sym_while, ACTIONS 113), (anon_sym_try, ACTIONS 115),
    (anon_sym_with, ACTIONS 117), (anon_sym_def, ACTIONS 119), (anon_sym_fn, ACTIONS 119),
    (anon_sym_LBRACK, ACTIONS 59), (anon_sym_LBRACE, ACTIONS 61), (anon_sym_global, ACTIONS 63),
    (anon_sym_nonlocal, ACTIONS 65), (anon_sym_exec, ACTIONS 67), (anon_sym_type, ACTIONS 69),
    (anon_sym_class, ACTIONS 121), (anon_sym_struct, ACTIONS 121), (anon_sym_mut, ACTIONS 73),
    (anon_sym_out, ACTIONS 73), (anon_sym_trait, ACTIONS 123), (anon_sym_AT, ACTIONS 77),
    (anon_sym_DASH, ACTIONS 79), (anon_sym_PLUS, ACTIONS 79), (anon_sym_ref, ACTIONS 81),
    (anon_sym_var, ACTIONS 81), (anon_sym_not, ACTIONS 83), (anon_sym_TILDE, ACTIONS 79),
    (anon_sym_lambda, ACTIONS 85), (anon_sym_yield, ACTIONS 87), (sym_ellipsis, ACTIONS 89),
    (anon_sym___mlir_type, ACTIONS 91), (sym_integer, ACTIONS 93), (sym_float, ACTIONS 89),
    (anon_sym_await, ACTIONS 95), (sym_true, ACTIONS 93), (sym_false, ACTIONS 93),
    (sym_none, ACTIONS 93), (sym_comment, ACTIONS 3), (sym_line_continuation, ACTIONS 3),
    (sym__dedent, ACTIONS 125), (sym_string_start, ACTIONS 97)]"

definition parse_table_570 :: "(nat \<times> nat) list" where "parse_table_570 = [
    (sym__statement, STATE 927), (sym__simple_statements, STATE 927),
    (sym_import_statement, STATE 11814), (sym_future_import_statement, STATE 11814),
    (sym_import_from_statement, STATE 11814), (sym_print_statement, STATE 11814),
    (sym_assert_statement, STATE 11814), (sym_comptime_assert_statement, STATE 11814),
    (sym_expression_statement, STATE 11814), (sym_tuple_expression, STATE 12425),
    (sym_named_expression, STATE 7969), (sym__named_expression_lhs, STATE 12752),
    (sym_return_statement, STATE 11814), (sym_delete_statement, STATE 11814),
    (sym_raise_statement, STATE 11814), (sym_pass_statement, STATE 11814),
    (sym_break_statement, STATE 11814), (sym_continue_statement, STATE 11814),
    (sym_extension_definition, STATE 927), (sym_mlir_region, STATE 927),
    (sym_comptime_statement, STATE 927), (sym_if_statement, STATE 927),
    (sym_match_statement, STATE 927), (sym_for_statement, STATE 927),
    (sym_while_statement, STATE 927), (sym_try_statement, STATE 927),
    (sym_with_statement, STATE 927), (sym_function_definition, STATE 927),
    (sym_global_statement, STATE 11814), (sym_nonlocal_statement, STATE 11814),
    (sym_exec_statement, STATE 11814), (sym_type_alias_statement, STATE 11814),
    (sym_parameterized_alias_statement, STATE 11814), (sym_class_definition, STATE 927),
    (sym_trait_definition, STATE 927), (sym_decorated_definition, STATE 927),
    (sym_decorator, STATE 3670), (sym_block, STATE 5453), (sym_pattern, STATE 8086),
    (sym_tuple_pattern, STATE 8101), (sym_list_pattern, STATE 8101),
    (sym_list_splat_pattern, STATE 6819), (sym_as_pattern, STATE 7969),
    (sym_expression, STATE 9883), (sym_primary_expression, STATE 7326),
    (sym_comptime_expression, STATE 7017), (sym_transfer_expression, STATE 7017),
    (sym_not_operator, STATE 7969), (sym_boolean_operator, STATE 7969),
    (sym_binary_operator, STATE 7017), (sym_unary_operator, STATE 7017),
    (sym_comparison_operator, STATE 7969), (sym_lambda, STATE 7969),
    (sym_assignment, STATE 12425), (sym_augmented_assignment, STATE 12425),
    (sym_pattern_list, STATE 8578), (sym_yield, STATE 12425), (sym_attribute, STATE 6836),
    (sym_subscript, STATE 6838), (sym_call, STATE 6845), (sym_mlir_type, STATE 7017),
    (sym_list, STATE 7017), (sym_set, STATE 7017), (sym_tuple, STATE 7017),
    (sym_dictionary, STATE 7017), (sym_struct_literal, STATE 7017),
    (sym_list_comprehension, STATE 7017), (sym_dictionary_comprehension, STATE 7017),
    (sym_set_comprehension, STATE 7017), (sym_generator_expression, STATE 7017),
    (sym_parenthesized_expression, STATE 7017), (sym_conditional_expression, STATE 7969),
    (sym_concatenated_string, STATE 7017), (sym_string, STATE 6751), (sym_await, STATE 7017),
    (aux_sym_module_repeat1, STATE 927), (aux_sym_decorated_definition_repeat1, STATE 3670),
    (sym_identifier, ACTIONS 9), (anon_sym_import, ACTIONS 11), (anon_sym_from, ACTIONS 13),
    (anon_sym_LPAREN, ACTIONS 15), (anon_sym_STAR, ACTIONS 17), (anon_sym_print, ACTIONS 19),
    (anon_sym_comptime, ACTIONS 99), (anon_sym_assert, ACTIONS 23),
    (anon_sym___comptime_assert, ACTIONS 25), (anon_sym_return, ACTIONS 27),
    (anon_sym_del, ACTIONS 29), (anon_sym_raise, ACTIONS 31), (anon_sym_pass, ACTIONS 33),
    (anon_sym_break, ACTIONS 35), (anon_sym_continue, ACTIONS 37),
    (anon_sym___extension, ACTIONS 101), (anon_sym___mlir_region, ACTIONS 103),
    (anon_sym_if, ACTIONS 105), (anon_sym_match, ACTIONS 107), (anon_sym_async, ACTIONS 109),
    (anon_sym_for, ACTIONS 111), (anon_sym_while, ACTIONS 113), (anon_sym_try, ACTIONS 115),
    (anon_sym_with, ACTIONS 117), (anon_sym_def, ACTIONS 119), (anon_sym_fn, ACTIONS 119),
    (anon_sym_LBRACK, ACTIONS 59), (anon_sym_LBRACE, ACTIONS 61), (anon_sym_global, ACTIONS 63),
    (anon_sym_nonlocal, ACTIONS 65), (anon_sym_exec, ACTIONS 67), (anon_sym_type, ACTIONS 69),
    (anon_sym_class, ACTIONS 121), (anon_sym_struct, ACTIONS 121), (anon_sym_mut, ACTIONS 73),
    (anon_sym_out, ACTIONS 73), (anon_sym_trait, ACTIONS 123), (anon_sym_AT, ACTIONS 77),
    (anon_sym_DASH, ACTIONS 79), (anon_sym_PLUS, ACTIONS 79), (anon_sym_ref, ACTIONS 81),
    (anon_sym_var, ACTIONS 81), (anon_sym_not, ACTIONS 83), (anon_sym_TILDE, ACTIONS 79),
    (anon_sym_lambda, ACTIONS 85), (anon_sym_yield, ACTIONS 87), (sym_ellipsis, ACTIONS 89),
    (anon_sym___mlir_type, ACTIONS 91), (sym_integer, ACTIONS 93), (sym_float, ACTIONS 89),
    (anon_sym_await, ACTIONS 95), (sym_true, ACTIONS 93), (sym_false, ACTIONS 93),
    (sym_none, ACTIONS 93), (sym_comment, ACTIONS 3), (sym_line_continuation, ACTIONS 3),
    (sym__dedent, ACTIONS 125), (sym_string_start, ACTIONS 97)]"

definition parse_table_571 :: "(nat \<times> nat) list" where "parse_table_571 = [
    (sym__statement, STATE 927), (sym__simple_statements, STATE 927),
    (sym_import_statement, STATE 11814), (sym_future_import_statement, STATE 11814),
    (sym_import_from_statement, STATE 11814), (sym_print_statement, STATE 11814),
    (sym_assert_statement, STATE 11814), (sym_comptime_assert_statement, STATE 11814),
    (sym_expression_statement, STATE 11814), (sym_tuple_expression, STATE 12425),
    (sym_named_expression, STATE 7969), (sym__named_expression_lhs, STATE 12752),
    (sym_return_statement, STATE 11814), (sym_delete_statement, STATE 11814),
    (sym_raise_statement, STATE 11814), (sym_pass_statement, STATE 11814),
    (sym_break_statement, STATE 11814), (sym_continue_statement, STATE 11814),
    (sym_extension_definition, STATE 927), (sym_mlir_region, STATE 927),
    (sym_comptime_statement, STATE 927), (sym_if_statement, STATE 927),
    (sym_match_statement, STATE 927), (sym_for_statement, STATE 927),
    (sym_while_statement, STATE 927), (sym_try_statement, STATE 927),
    (sym_with_statement, STATE 927), (sym_function_definition, STATE 927),
    (sym_global_statement, STATE 11814), (sym_nonlocal_statement, STATE 11814),
    (sym_exec_statement, STATE 11814), (sym_type_alias_statement, STATE 11814),
    (sym_parameterized_alias_statement, STATE 11814), (sym_class_definition, STATE 927),
    (sym_trait_definition, STATE 927), (sym_decorated_definition, STATE 927),
    (sym_decorator, STATE 3670), (sym_block, STATE 5471), (sym_pattern, STATE 8086),
    (sym_tuple_pattern, STATE 8101), (sym_list_pattern, STATE 8101),
    (sym_list_splat_pattern, STATE 6819), (sym_as_pattern, STATE 7969),
    (sym_expression, STATE 9883), (sym_primary_expression, STATE 7326),
    (sym_comptime_expression, STATE 7017), (sym_transfer_expression, STATE 7017),
    (sym_not_operator, STATE 7969), (sym_boolean_operator, STATE 7969),
    (sym_binary_operator, STATE 7017), (sym_unary_operator, STATE 7017),
    (sym_comparison_operator, STATE 7969), (sym_lambda, STATE 7969),
    (sym_assignment, STATE 12425), (sym_augmented_assignment, STATE 12425),
    (sym_pattern_list, STATE 8578), (sym_yield, STATE 12425), (sym_attribute, STATE 6836),
    (sym_subscript, STATE 6838), (sym_call, STATE 6845), (sym_mlir_type, STATE 7017),
    (sym_list, STATE 7017), (sym_set, STATE 7017), (sym_tuple, STATE 7017),
    (sym_dictionary, STATE 7017), (sym_struct_literal, STATE 7017),
    (sym_list_comprehension, STATE 7017), (sym_dictionary_comprehension, STATE 7017),
    (sym_set_comprehension, STATE 7017), (sym_generator_expression, STATE 7017),
    (sym_parenthesized_expression, STATE 7017), (sym_conditional_expression, STATE 7969),
    (sym_concatenated_string, STATE 7017), (sym_string, STATE 6751), (sym_await, STATE 7017),
    (aux_sym_module_repeat1, STATE 927), (aux_sym_decorated_definition_repeat1, STATE 3670),
    (sym_identifier, ACTIONS 9), (anon_sym_import, ACTIONS 11), (anon_sym_from, ACTIONS 13),
    (anon_sym_LPAREN, ACTIONS 15), (anon_sym_STAR, ACTIONS 17), (anon_sym_print, ACTIONS 19),
    (anon_sym_comptime, ACTIONS 99), (anon_sym_assert, ACTIONS 23),
    (anon_sym___comptime_assert, ACTIONS 25), (anon_sym_return, ACTIONS 27),
    (anon_sym_del, ACTIONS 29), (anon_sym_raise, ACTIONS 31), (anon_sym_pass, ACTIONS 33),
    (anon_sym_break, ACTIONS 35), (anon_sym_continue, ACTIONS 37),
    (anon_sym___extension, ACTIONS 101), (anon_sym___mlir_region, ACTIONS 103),
    (anon_sym_if, ACTIONS 105), (anon_sym_match, ACTIONS 107), (anon_sym_async, ACTIONS 109),
    (anon_sym_for, ACTIONS 111), (anon_sym_while, ACTIONS 113), (anon_sym_try, ACTIONS 115),
    (anon_sym_with, ACTIONS 117), (anon_sym_def, ACTIONS 119), (anon_sym_fn, ACTIONS 119),
    (anon_sym_LBRACK, ACTIONS 59), (anon_sym_LBRACE, ACTIONS 61), (anon_sym_global, ACTIONS 63),
    (anon_sym_nonlocal, ACTIONS 65), (anon_sym_exec, ACTIONS 67), (anon_sym_type, ACTIONS 69),
    (anon_sym_class, ACTIONS 121), (anon_sym_struct, ACTIONS 121), (anon_sym_mut, ACTIONS 73),
    (anon_sym_out, ACTIONS 73), (anon_sym_trait, ACTIONS 123), (anon_sym_AT, ACTIONS 77),
    (anon_sym_DASH, ACTIONS 79), (anon_sym_PLUS, ACTIONS 79), (anon_sym_ref, ACTIONS 81),
    (anon_sym_var, ACTIONS 81), (anon_sym_not, ACTIONS 83), (anon_sym_TILDE, ACTIONS 79),
    (anon_sym_lambda, ACTIONS 85), (anon_sym_yield, ACTIONS 87), (sym_ellipsis, ACTIONS 89),
    (anon_sym___mlir_type, ACTIONS 91), (sym_integer, ACTIONS 93), (sym_float, ACTIONS 89),
    (anon_sym_await, ACTIONS 95), (sym_true, ACTIONS 93), (sym_false, ACTIONS 93),
    (sym_none, ACTIONS 93), (sym_comment, ACTIONS 3), (sym_line_continuation, ACTIONS 3),
    (sym__dedent, ACTIONS 125), (sym_string_start, ACTIONS 97)]"

definition parse_table_572 :: "(nat \<times> nat) list" where "parse_table_572 = [
    (sym__statement, STATE 927), (sym__simple_statements, STATE 927),
    (sym_import_statement, STATE 11814), (sym_future_import_statement, STATE 11814),
    (sym_import_from_statement, STATE 11814), (sym_print_statement, STATE 11814),
    (sym_assert_statement, STATE 11814), (sym_comptime_assert_statement, STATE 11814),
    (sym_expression_statement, STATE 11814), (sym_tuple_expression, STATE 12425),
    (sym_named_expression, STATE 7969), (sym__named_expression_lhs, STATE 12752),
    (sym_return_statement, STATE 11814), (sym_delete_statement, STATE 11814),
    (sym_raise_statement, STATE 11814), (sym_pass_statement, STATE 11814),
    (sym_break_statement, STATE 11814), (sym_continue_statement, STATE 11814),
    (sym_extension_definition, STATE 927), (sym_mlir_region, STATE 927),
    (sym_comptime_statement, STATE 927), (sym_if_statement, STATE 927),
    (sym_match_statement, STATE 927), (sym_for_statement, STATE 927),
    (sym_while_statement, STATE 927), (sym_try_statement, STATE 927),
    (sym_with_statement, STATE 927), (sym_function_definition, STATE 927),
    (sym_global_statement, STATE 11814), (sym_nonlocal_statement, STATE 11814),
    (sym_exec_statement, STATE 11814), (sym_type_alias_statement, STATE 11814),
    (sym_parameterized_alias_statement, STATE 11814), (sym_class_definition, STATE 927),
    (sym_trait_definition, STATE 927), (sym_decorated_definition, STATE 927),
    (sym_decorator, STATE 3670), (sym_block, STATE 5474), (sym_pattern, STATE 8086),
    (sym_tuple_pattern, STATE 8101), (sym_list_pattern, STATE 8101),
    (sym_list_splat_pattern, STATE 6819), (sym_as_pattern, STATE 7969),
    (sym_expression, STATE 9883), (sym_primary_expression, STATE 7326),
    (sym_comptime_expression, STATE 7017), (sym_transfer_expression, STATE 7017),
    (sym_not_operator, STATE 7969), (sym_boolean_operator, STATE 7969),
    (sym_binary_operator, STATE 7017), (sym_unary_operator, STATE 7017),
    (sym_comparison_operator, STATE 7969), (sym_lambda, STATE 7969),
    (sym_assignment, STATE 12425), (sym_augmented_assignment, STATE 12425),
    (sym_pattern_list, STATE 8578), (sym_yield, STATE 12425), (sym_attribute, STATE 6836),
    (sym_subscript, STATE 6838), (sym_call, STATE 6845), (sym_mlir_type, STATE 7017),
    (sym_list, STATE 7017), (sym_set, STATE 7017), (sym_tuple, STATE 7017),
    (sym_dictionary, STATE 7017), (sym_struct_literal, STATE 7017),
    (sym_list_comprehension, STATE 7017), (sym_dictionary_comprehension, STATE 7017),
    (sym_set_comprehension, STATE 7017), (sym_generator_expression, STATE 7017),
    (sym_parenthesized_expression, STATE 7017), (sym_conditional_expression, STATE 7969),
    (sym_concatenated_string, STATE 7017), (sym_string, STATE 6751), (sym_await, STATE 7017),
    (aux_sym_module_repeat1, STATE 927), (aux_sym_decorated_definition_repeat1, STATE 3670),
    (sym_identifier, ACTIONS 9), (anon_sym_import, ACTIONS 11), (anon_sym_from, ACTIONS 13),
    (anon_sym_LPAREN, ACTIONS 15), (anon_sym_STAR, ACTIONS 17), (anon_sym_print, ACTIONS 19),
    (anon_sym_comptime, ACTIONS 99), (anon_sym_assert, ACTIONS 23),
    (anon_sym___comptime_assert, ACTIONS 25), (anon_sym_return, ACTIONS 27),
    (anon_sym_del, ACTIONS 29), (anon_sym_raise, ACTIONS 31), (anon_sym_pass, ACTIONS 33),
    (anon_sym_break, ACTIONS 35), (anon_sym_continue, ACTIONS 37),
    (anon_sym___extension, ACTIONS 101), (anon_sym___mlir_region, ACTIONS 103),
    (anon_sym_if, ACTIONS 105), (anon_sym_match, ACTIONS 107), (anon_sym_async, ACTIONS 109),
    (anon_sym_for, ACTIONS 111), (anon_sym_while, ACTIONS 113), (anon_sym_try, ACTIONS 115),
    (anon_sym_with, ACTIONS 117), (anon_sym_def, ACTIONS 119), (anon_sym_fn, ACTIONS 119),
    (anon_sym_LBRACK, ACTIONS 59), (anon_sym_LBRACE, ACTIONS 61), (anon_sym_global, ACTIONS 63),
    (anon_sym_nonlocal, ACTIONS 65), (anon_sym_exec, ACTIONS 67), (anon_sym_type, ACTIONS 69),
    (anon_sym_class, ACTIONS 121), (anon_sym_struct, ACTIONS 121), (anon_sym_mut, ACTIONS 73),
    (anon_sym_out, ACTIONS 73), (anon_sym_trait, ACTIONS 123), (anon_sym_AT, ACTIONS 77),
    (anon_sym_DASH, ACTIONS 79), (anon_sym_PLUS, ACTIONS 79), (anon_sym_ref, ACTIONS 81),
    (anon_sym_var, ACTIONS 81), (anon_sym_not, ACTIONS 83), (anon_sym_TILDE, ACTIONS 79),
    (anon_sym_lambda, ACTIONS 85), (anon_sym_yield, ACTIONS 87), (sym_ellipsis, ACTIONS 89),
    (anon_sym___mlir_type, ACTIONS 91), (sym_integer, ACTIONS 93), (sym_float, ACTIONS 89),
    (anon_sym_await, ACTIONS 95), (sym_true, ACTIONS 93), (sym_false, ACTIONS 93),
    (sym_none, ACTIONS 93), (sym_comment, ACTIONS 3), (sym_line_continuation, ACTIONS 3),
    (sym__dedent, ACTIONS 125), (sym_string_start, ACTIONS 97)]"

definition parse_table_573 :: "(nat \<times> nat) list" where "parse_table_573 = [
    (sym__statement, STATE 927), (sym__simple_statements, STATE 927),
    (sym_import_statement, STATE 11814), (sym_future_import_statement, STATE 11814),
    (sym_import_from_statement, STATE 11814), (sym_print_statement, STATE 11814),
    (sym_assert_statement, STATE 11814), (sym_comptime_assert_statement, STATE 11814),
    (sym_expression_statement, STATE 11814), (sym_tuple_expression, STATE 12425),
    (sym_named_expression, STATE 7969), (sym__named_expression_lhs, STATE 12752),
    (sym_return_statement, STATE 11814), (sym_delete_statement, STATE 11814),
    (sym_raise_statement, STATE 11814), (sym_pass_statement, STATE 11814),
    (sym_break_statement, STATE 11814), (sym_continue_statement, STATE 11814),
    (sym_extension_definition, STATE 927), (sym_mlir_region, STATE 927),
    (sym_comptime_statement, STATE 927), (sym_if_statement, STATE 927),
    (sym_match_statement, STATE 927), (sym_for_statement, STATE 927),
    (sym_while_statement, STATE 927), (sym_try_statement, STATE 927),
    (sym_with_statement, STATE 927), (sym_function_definition, STATE 927),
    (sym_global_statement, STATE 11814), (sym_nonlocal_statement, STATE 11814),
    (sym_exec_statement, STATE 11814), (sym_type_alias_statement, STATE 11814),
    (sym_parameterized_alias_statement, STATE 11814), (sym_class_definition, STATE 927),
    (sym_trait_definition, STATE 927), (sym_decorated_definition, STATE 927),
    (sym_decorator, STATE 3670), (sym_block, STATE 5495), (sym_pattern, STATE 8086),
    (sym_tuple_pattern, STATE 8101), (sym_list_pattern, STATE 8101),
    (sym_list_splat_pattern, STATE 6819), (sym_as_pattern, STATE 7969),
    (sym_expression, STATE 9883), (sym_primary_expression, STATE 7326),
    (sym_comptime_expression, STATE 7017), (sym_transfer_expression, STATE 7017),
    (sym_not_operator, STATE 7969), (sym_boolean_operator, STATE 7969),
    (sym_binary_operator, STATE 7017), (sym_unary_operator, STATE 7017),
    (sym_comparison_operator, STATE 7969), (sym_lambda, STATE 7969),
    (sym_assignment, STATE 12425), (sym_augmented_assignment, STATE 12425),
    (sym_pattern_list, STATE 8578), (sym_yield, STATE 12425), (sym_attribute, STATE 6836),
    (sym_subscript, STATE 6838), (sym_call, STATE 6845), (sym_mlir_type, STATE 7017),
    (sym_list, STATE 7017), (sym_set, STATE 7017), (sym_tuple, STATE 7017),
    (sym_dictionary, STATE 7017), (sym_struct_literal, STATE 7017),
    (sym_list_comprehension, STATE 7017), (sym_dictionary_comprehension, STATE 7017),
    (sym_set_comprehension, STATE 7017), (sym_generator_expression, STATE 7017),
    (sym_parenthesized_expression, STATE 7017), (sym_conditional_expression, STATE 7969),
    (sym_concatenated_string, STATE 7017), (sym_string, STATE 6751), (sym_await, STATE 7017),
    (aux_sym_module_repeat1, STATE 927), (aux_sym_decorated_definition_repeat1, STATE 3670),
    (sym_identifier, ACTIONS 9), (anon_sym_import, ACTIONS 11), (anon_sym_from, ACTIONS 13),
    (anon_sym_LPAREN, ACTIONS 15), (anon_sym_STAR, ACTIONS 17), (anon_sym_print, ACTIONS 19),
    (anon_sym_comptime, ACTIONS 99), (anon_sym_assert, ACTIONS 23),
    (anon_sym___comptime_assert, ACTIONS 25), (anon_sym_return, ACTIONS 27),
    (anon_sym_del, ACTIONS 29), (anon_sym_raise, ACTIONS 31), (anon_sym_pass, ACTIONS 33),
    (anon_sym_break, ACTIONS 35), (anon_sym_continue, ACTIONS 37),
    (anon_sym___extension, ACTIONS 101), (anon_sym___mlir_region, ACTIONS 103),
    (anon_sym_if, ACTIONS 105), (anon_sym_match, ACTIONS 107), (anon_sym_async, ACTIONS 109),
    (anon_sym_for, ACTIONS 111), (anon_sym_while, ACTIONS 113), (anon_sym_try, ACTIONS 115),
    (anon_sym_with, ACTIONS 117), (anon_sym_def, ACTIONS 119), (anon_sym_fn, ACTIONS 119),
    (anon_sym_LBRACK, ACTIONS 59), (anon_sym_LBRACE, ACTIONS 61), (anon_sym_global, ACTIONS 63),
    (anon_sym_nonlocal, ACTIONS 65), (anon_sym_exec, ACTIONS 67), (anon_sym_type, ACTIONS 69),
    (anon_sym_class, ACTIONS 121), (anon_sym_struct, ACTIONS 121), (anon_sym_mut, ACTIONS 73),
    (anon_sym_out, ACTIONS 73), (anon_sym_trait, ACTIONS 123), (anon_sym_AT, ACTIONS 77),
    (anon_sym_DASH, ACTIONS 79), (anon_sym_PLUS, ACTIONS 79), (anon_sym_ref, ACTIONS 81),
    (anon_sym_var, ACTIONS 81), (anon_sym_not, ACTIONS 83), (anon_sym_TILDE, ACTIONS 79),
    (anon_sym_lambda, ACTIONS 85), (anon_sym_yield, ACTIONS 87), (sym_ellipsis, ACTIONS 89),
    (anon_sym___mlir_type, ACTIONS 91), (sym_integer, ACTIONS 93), (sym_float, ACTIONS 89),
    (anon_sym_await, ACTIONS 95), (sym_true, ACTIONS 93), (sym_false, ACTIONS 93),
    (sym_none, ACTIONS 93), (sym_comment, ACTIONS 3), (sym_line_continuation, ACTIONS 3),
    (sym__dedent, ACTIONS 125), (sym_string_start, ACTIONS 97)]"

definition parse_table_574 :: "(nat \<times> nat) list" where "parse_table_574 = [
    (sym__statement, STATE 927), (sym__simple_statements, STATE 927),
    (sym_import_statement, STATE 11814), (sym_future_import_statement, STATE 11814),
    (sym_import_from_statement, STATE 11814), (sym_print_statement, STATE 11814),
    (sym_assert_statement, STATE 11814), (sym_comptime_assert_statement, STATE 11814),
    (sym_expression_statement, STATE 11814), (sym_tuple_expression, STATE 12425),
    (sym_named_expression, STATE 7969), (sym__named_expression_lhs, STATE 12752),
    (sym_return_statement, STATE 11814), (sym_delete_statement, STATE 11814),
    (sym_raise_statement, STATE 11814), (sym_pass_statement, STATE 11814),
    (sym_break_statement, STATE 11814), (sym_continue_statement, STATE 11814),
    (sym_extension_definition, STATE 927), (sym_mlir_region, STATE 927),
    (sym_comptime_statement, STATE 927), (sym_if_statement, STATE 927),
    (sym_match_statement, STATE 927), (sym_for_statement, STATE 927),
    (sym_while_statement, STATE 927), (sym_try_statement, STATE 927),
    (sym_with_statement, STATE 927), (sym_function_definition, STATE 927),
    (sym_global_statement, STATE 11814), (sym_nonlocal_statement, STATE 11814),
    (sym_exec_statement, STATE 11814), (sym_type_alias_statement, STATE 11814),
    (sym_parameterized_alias_statement, STATE 11814), (sym_class_definition, STATE 927),
    (sym_trait_definition, STATE 927), (sym_decorated_definition, STATE 927),
    (sym_decorator, STATE 3670), (sym_block, STATE 5525), (sym_pattern, STATE 8086),
    (sym_tuple_pattern, STATE 8101), (sym_list_pattern, STATE 8101),
    (sym_list_splat_pattern, STATE 6819), (sym_as_pattern, STATE 7969),
    (sym_expression, STATE 9883), (sym_primary_expression, STATE 7326),
    (sym_comptime_expression, STATE 7017), (sym_transfer_expression, STATE 7017),
    (sym_not_operator, STATE 7969), (sym_boolean_operator, STATE 7969),
    (sym_binary_operator, STATE 7017), (sym_unary_operator, STATE 7017),
    (sym_comparison_operator, STATE 7969), (sym_lambda, STATE 7969),
    (sym_assignment, STATE 12425), (sym_augmented_assignment, STATE 12425),
    (sym_pattern_list, STATE 8578), (sym_yield, STATE 12425), (sym_attribute, STATE 6836),
    (sym_subscript, STATE 6838), (sym_call, STATE 6845), (sym_mlir_type, STATE 7017),
    (sym_list, STATE 7017), (sym_set, STATE 7017), (sym_tuple, STATE 7017),
    (sym_dictionary, STATE 7017), (sym_struct_literal, STATE 7017),
    (sym_list_comprehension, STATE 7017), (sym_dictionary_comprehension, STATE 7017),
    (sym_set_comprehension, STATE 7017), (sym_generator_expression, STATE 7017),
    (sym_parenthesized_expression, STATE 7017), (sym_conditional_expression, STATE 7969),
    (sym_concatenated_string, STATE 7017), (sym_string, STATE 6751), (sym_await, STATE 7017),
    (aux_sym_module_repeat1, STATE 927), (aux_sym_decorated_definition_repeat1, STATE 3670),
    (sym_identifier, ACTIONS 9), (anon_sym_import, ACTIONS 11), (anon_sym_from, ACTIONS 13),
    (anon_sym_LPAREN, ACTIONS 15), (anon_sym_STAR, ACTIONS 17), (anon_sym_print, ACTIONS 19),
    (anon_sym_comptime, ACTIONS 99), (anon_sym_assert, ACTIONS 23),
    (anon_sym___comptime_assert, ACTIONS 25), (anon_sym_return, ACTIONS 27),
    (anon_sym_del, ACTIONS 29), (anon_sym_raise, ACTIONS 31), (anon_sym_pass, ACTIONS 33),
    (anon_sym_break, ACTIONS 35), (anon_sym_continue, ACTIONS 37),
    (anon_sym___extension, ACTIONS 101), (anon_sym___mlir_region, ACTIONS 103),
    (anon_sym_if, ACTIONS 105), (anon_sym_match, ACTIONS 107), (anon_sym_async, ACTIONS 109),
    (anon_sym_for, ACTIONS 111), (anon_sym_while, ACTIONS 113), (anon_sym_try, ACTIONS 115),
    (anon_sym_with, ACTIONS 117), (anon_sym_def, ACTIONS 119), (anon_sym_fn, ACTIONS 119),
    (anon_sym_LBRACK, ACTIONS 59), (anon_sym_LBRACE, ACTIONS 61), (anon_sym_global, ACTIONS 63),
    (anon_sym_nonlocal, ACTIONS 65), (anon_sym_exec, ACTIONS 67), (anon_sym_type, ACTIONS 69),
    (anon_sym_class, ACTIONS 121), (anon_sym_struct, ACTIONS 121), (anon_sym_mut, ACTIONS 73),
    (anon_sym_out, ACTIONS 73), (anon_sym_trait, ACTIONS 123), (anon_sym_AT, ACTIONS 77),
    (anon_sym_DASH, ACTIONS 79), (anon_sym_PLUS, ACTIONS 79), (anon_sym_ref, ACTIONS 81),
    (anon_sym_var, ACTIONS 81), (anon_sym_not, ACTIONS 83), (anon_sym_TILDE, ACTIONS 79),
    (anon_sym_lambda, ACTIONS 85), (anon_sym_yield, ACTIONS 87), (sym_ellipsis, ACTIONS 89),
    (anon_sym___mlir_type, ACTIONS 91), (sym_integer, ACTIONS 93), (sym_float, ACTIONS 89),
    (anon_sym_await, ACTIONS 95), (sym_true, ACTIONS 93), (sym_false, ACTIONS 93),
    (sym_none, ACTIONS 93), (sym_comment, ACTIONS 3), (sym_line_continuation, ACTIONS 3),
    (sym__dedent, ACTIONS 125), (sym_string_start, ACTIONS 97)]"

definition parse_table_575 :: "(nat \<times> nat) list" where "parse_table_575 = [
    (sym__statement, STATE 927), (sym__simple_statements, STATE 927),
    (sym_import_statement, STATE 11814), (sym_future_import_statement, STATE 11814),
    (sym_import_from_statement, STATE 11814), (sym_print_statement, STATE 11814),
    (sym_assert_statement, STATE 11814), (sym_comptime_assert_statement, STATE 11814),
    (sym_expression_statement, STATE 11814), (sym_tuple_expression, STATE 12425),
    (sym_named_expression, STATE 7969), (sym__named_expression_lhs, STATE 12752),
    (sym_return_statement, STATE 11814), (sym_delete_statement, STATE 11814),
    (sym_raise_statement, STATE 11814), (sym_pass_statement, STATE 11814),
    (sym_break_statement, STATE 11814), (sym_continue_statement, STATE 11814),
    (sym_extension_definition, STATE 927), (sym_mlir_region, STATE 927),
    (sym_comptime_statement, STATE 927), (sym_if_statement, STATE 927),
    (sym_match_statement, STATE 927), (sym_for_statement, STATE 927),
    (sym_while_statement, STATE 927), (sym_try_statement, STATE 927),
    (sym_with_statement, STATE 927), (sym_function_definition, STATE 927),
    (sym_global_statement, STATE 11814), (sym_nonlocal_statement, STATE 11814),
    (sym_exec_statement, STATE 11814), (sym_type_alias_statement, STATE 11814),
    (sym_parameterized_alias_statement, STATE 11814), (sym_class_definition, STATE 927),
    (sym_trait_definition, STATE 927), (sym_decorated_definition, STATE 927),
    (sym_decorator, STATE 3670), (sym_block, STATE 5548), (sym_pattern, STATE 8086),
    (sym_tuple_pattern, STATE 8101), (sym_list_pattern, STATE 8101),
    (sym_list_splat_pattern, STATE 6819), (sym_as_pattern, STATE 7969),
    (sym_expression, STATE 9883), (sym_primary_expression, STATE 7326),
    (sym_comptime_expression, STATE 7017), (sym_transfer_expression, STATE 7017),
    (sym_not_operator, STATE 7969), (sym_boolean_operator, STATE 7969),
    (sym_binary_operator, STATE 7017), (sym_unary_operator, STATE 7017),
    (sym_comparison_operator, STATE 7969), (sym_lambda, STATE 7969),
    (sym_assignment, STATE 12425), (sym_augmented_assignment, STATE 12425),
    (sym_pattern_list, STATE 8578), (sym_yield, STATE 12425), (sym_attribute, STATE 6836),
    (sym_subscript, STATE 6838), (sym_call, STATE 6845), (sym_mlir_type, STATE 7017),
    (sym_list, STATE 7017), (sym_set, STATE 7017), (sym_tuple, STATE 7017),
    (sym_dictionary, STATE 7017), (sym_struct_literal, STATE 7017),
    (sym_list_comprehension, STATE 7017), (sym_dictionary_comprehension, STATE 7017),
    (sym_set_comprehension, STATE 7017), (sym_generator_expression, STATE 7017),
    (sym_parenthesized_expression, STATE 7017), (sym_conditional_expression, STATE 7969),
    (sym_concatenated_string, STATE 7017), (sym_string, STATE 6751), (sym_await, STATE 7017),
    (aux_sym_module_repeat1, STATE 927), (aux_sym_decorated_definition_repeat1, STATE 3670),
    (sym_identifier, ACTIONS 9), (anon_sym_import, ACTIONS 11), (anon_sym_from, ACTIONS 13),
    (anon_sym_LPAREN, ACTIONS 15), (anon_sym_STAR, ACTIONS 17), (anon_sym_print, ACTIONS 19),
    (anon_sym_comptime, ACTIONS 99), (anon_sym_assert, ACTIONS 23),
    (anon_sym___comptime_assert, ACTIONS 25), (anon_sym_return, ACTIONS 27),
    (anon_sym_del, ACTIONS 29), (anon_sym_raise, ACTIONS 31), (anon_sym_pass, ACTIONS 33),
    (anon_sym_break, ACTIONS 35), (anon_sym_continue, ACTIONS 37),
    (anon_sym___extension, ACTIONS 101), (anon_sym___mlir_region, ACTIONS 103),
    (anon_sym_if, ACTIONS 105), (anon_sym_match, ACTIONS 107), (anon_sym_async, ACTIONS 109),
    (anon_sym_for, ACTIONS 111), (anon_sym_while, ACTIONS 113), (anon_sym_try, ACTIONS 115),
    (anon_sym_with, ACTIONS 117), (anon_sym_def, ACTIONS 119), (anon_sym_fn, ACTIONS 119),
    (anon_sym_LBRACK, ACTIONS 59), (anon_sym_LBRACE, ACTIONS 61), (anon_sym_global, ACTIONS 63),
    (anon_sym_nonlocal, ACTIONS 65), (anon_sym_exec, ACTIONS 67), (anon_sym_type, ACTIONS 69),
    (anon_sym_class, ACTIONS 121), (anon_sym_struct, ACTIONS 121), (anon_sym_mut, ACTIONS 73),
    (anon_sym_out, ACTIONS 73), (anon_sym_trait, ACTIONS 123), (anon_sym_AT, ACTIONS 77),
    (anon_sym_DASH, ACTIONS 79), (anon_sym_PLUS, ACTIONS 79), (anon_sym_ref, ACTIONS 81),
    (anon_sym_var, ACTIONS 81), (anon_sym_not, ACTIONS 83), (anon_sym_TILDE, ACTIONS 79),
    (anon_sym_lambda, ACTIONS 85), (anon_sym_yield, ACTIONS 87), (sym_ellipsis, ACTIONS 89),
    (anon_sym___mlir_type, ACTIONS 91), (sym_integer, ACTIONS 93), (sym_float, ACTIONS 89),
    (anon_sym_await, ACTIONS 95), (sym_true, ACTIONS 93), (sym_false, ACTIONS 93),
    (sym_none, ACTIONS 93), (sym_comment, ACTIONS 3), (sym_line_continuation, ACTIONS 3),
    (sym__dedent, ACTIONS 125), (sym_string_start, ACTIONS 97)]"

definition parse_table_576 :: "(nat \<times> nat) list" where "parse_table_576 = [
    (sym__statement, STATE 927), (sym__simple_statements, STATE 927),
    (sym_import_statement, STATE 11814), (sym_future_import_statement, STATE 11814),
    (sym_import_from_statement, STATE 11814), (sym_print_statement, STATE 11814),
    (sym_assert_statement, STATE 11814), (sym_comptime_assert_statement, STATE 11814),
    (sym_expression_statement, STATE 11814), (sym_tuple_expression, STATE 12425),
    (sym_named_expression, STATE 7969), (sym__named_expression_lhs, STATE 12752),
    (sym_return_statement, STATE 11814), (sym_delete_statement, STATE 11814),
    (sym_raise_statement, STATE 11814), (sym_pass_statement, STATE 11814),
    (sym_break_statement, STATE 11814), (sym_continue_statement, STATE 11814),
    (sym_extension_definition, STATE 927), (sym_mlir_region, STATE 927),
    (sym_comptime_statement, STATE 927), (sym_if_statement, STATE 927),
    (sym_match_statement, STATE 927), (sym_for_statement, STATE 927),
    (sym_while_statement, STATE 927), (sym_try_statement, STATE 927),
    (sym_with_statement, STATE 927), (sym_function_definition, STATE 927),
    (sym_global_statement, STATE 11814), (sym_nonlocal_statement, STATE 11814),
    (sym_exec_statement, STATE 11814), (sym_type_alias_statement, STATE 11814),
    (sym_parameterized_alias_statement, STATE 11814), (sym_class_definition, STATE 927),
    (sym_trait_definition, STATE 927), (sym_decorated_definition, STATE 927),
    (sym_decorator, STATE 3670), (sym_block, STATE 5561), (sym_pattern, STATE 8086),
    (sym_tuple_pattern, STATE 8101), (sym_list_pattern, STATE 8101),
    (sym_list_splat_pattern, STATE 6819), (sym_as_pattern, STATE 7969),
    (sym_expression, STATE 9883), (sym_primary_expression, STATE 7326),
    (sym_comptime_expression, STATE 7017), (sym_transfer_expression, STATE 7017),
    (sym_not_operator, STATE 7969), (sym_boolean_operator, STATE 7969),
    (sym_binary_operator, STATE 7017), (sym_unary_operator, STATE 7017),
    (sym_comparison_operator, STATE 7969), (sym_lambda, STATE 7969),
    (sym_assignment, STATE 12425), (sym_augmented_assignment, STATE 12425),
    (sym_pattern_list, STATE 8578), (sym_yield, STATE 12425), (sym_attribute, STATE 6836),
    (sym_subscript, STATE 6838), (sym_call, STATE 6845), (sym_mlir_type, STATE 7017),
    (sym_list, STATE 7017), (sym_set, STATE 7017), (sym_tuple, STATE 7017),
    (sym_dictionary, STATE 7017), (sym_struct_literal, STATE 7017),
    (sym_list_comprehension, STATE 7017), (sym_dictionary_comprehension, STATE 7017),
    (sym_set_comprehension, STATE 7017), (sym_generator_expression, STATE 7017),
    (sym_parenthesized_expression, STATE 7017), (sym_conditional_expression, STATE 7969),
    (sym_concatenated_string, STATE 7017), (sym_string, STATE 6751), (sym_await, STATE 7017),
    (aux_sym_module_repeat1, STATE 927), (aux_sym_decorated_definition_repeat1, STATE 3670),
    (sym_identifier, ACTIONS 9), (anon_sym_import, ACTIONS 11), (anon_sym_from, ACTIONS 13),
    (anon_sym_LPAREN, ACTIONS 15), (anon_sym_STAR, ACTIONS 17), (anon_sym_print, ACTIONS 19),
    (anon_sym_comptime, ACTIONS 99), (anon_sym_assert, ACTIONS 23),
    (anon_sym___comptime_assert, ACTIONS 25), (anon_sym_return, ACTIONS 27),
    (anon_sym_del, ACTIONS 29), (anon_sym_raise, ACTIONS 31), (anon_sym_pass, ACTIONS 33),
    (anon_sym_break, ACTIONS 35), (anon_sym_continue, ACTIONS 37),
    (anon_sym___extension, ACTIONS 101), (anon_sym___mlir_region, ACTIONS 103),
    (anon_sym_if, ACTIONS 105), (anon_sym_match, ACTIONS 107), (anon_sym_async, ACTIONS 109),
    (anon_sym_for, ACTIONS 111), (anon_sym_while, ACTIONS 113), (anon_sym_try, ACTIONS 115),
    (anon_sym_with, ACTIONS 117), (anon_sym_def, ACTIONS 119), (anon_sym_fn, ACTIONS 119),
    (anon_sym_LBRACK, ACTIONS 59), (anon_sym_LBRACE, ACTIONS 61), (anon_sym_global, ACTIONS 63),
    (anon_sym_nonlocal, ACTIONS 65), (anon_sym_exec, ACTIONS 67), (anon_sym_type, ACTIONS 69),
    (anon_sym_class, ACTIONS 121), (anon_sym_struct, ACTIONS 121), (anon_sym_mut, ACTIONS 73),
    (anon_sym_out, ACTIONS 73), (anon_sym_trait, ACTIONS 123), (anon_sym_AT, ACTIONS 77),
    (anon_sym_DASH, ACTIONS 79), (anon_sym_PLUS, ACTIONS 79), (anon_sym_ref, ACTIONS 81),
    (anon_sym_var, ACTIONS 81), (anon_sym_not, ACTIONS 83), (anon_sym_TILDE, ACTIONS 79),
    (anon_sym_lambda, ACTIONS 85), (anon_sym_yield, ACTIONS 87), (sym_ellipsis, ACTIONS 89),
    (anon_sym___mlir_type, ACTIONS 91), (sym_integer, ACTIONS 93), (sym_float, ACTIONS 89),
    (anon_sym_await, ACTIONS 95), (sym_true, ACTIONS 93), (sym_false, ACTIONS 93),
    (sym_none, ACTIONS 93), (sym_comment, ACTIONS 3), (sym_line_continuation, ACTIONS 3),
    (sym__dedent, ACTIONS 125), (sym_string_start, ACTIONS 97)]"

definition parse_table_577 :: "(nat \<times> nat) list" where "parse_table_577 = [
    (sym__statement, STATE 927), (sym__simple_statements, STATE 927),
    (sym_import_statement, STATE 11814), (sym_future_import_statement, STATE 11814),
    (sym_import_from_statement, STATE 11814), (sym_print_statement, STATE 11814),
    (sym_assert_statement, STATE 11814), (sym_comptime_assert_statement, STATE 11814),
    (sym_expression_statement, STATE 11814), (sym_tuple_expression, STATE 12425),
    (sym_named_expression, STATE 7969), (sym__named_expression_lhs, STATE 12752),
    (sym_return_statement, STATE 11814), (sym_delete_statement, STATE 11814),
    (sym_raise_statement, STATE 11814), (sym_pass_statement, STATE 11814),
    (sym_break_statement, STATE 11814), (sym_continue_statement, STATE 11814),
    (sym_extension_definition, STATE 927), (sym_mlir_region, STATE 927),
    (sym_comptime_statement, STATE 927), (sym_if_statement, STATE 927),
    (sym_match_statement, STATE 927), (sym_for_statement, STATE 927),
    (sym_while_statement, STATE 927), (sym_try_statement, STATE 927),
    (sym_with_statement, STATE 927), (sym_function_definition, STATE 927),
    (sym_global_statement, STATE 11814), (sym_nonlocal_statement, STATE 11814),
    (sym_exec_statement, STATE 11814), (sym_type_alias_statement, STATE 11814),
    (sym_parameterized_alias_statement, STATE 11814), (sym_class_definition, STATE 927),
    (sym_trait_definition, STATE 927), (sym_decorated_definition, STATE 927),
    (sym_decorator, STATE 3670), (sym_block, STATE 5568), (sym_pattern, STATE 8086),
    (sym_tuple_pattern, STATE 8101), (sym_list_pattern, STATE 8101),
    (sym_list_splat_pattern, STATE 6819), (sym_as_pattern, STATE 7969),
    (sym_expression, STATE 9883), (sym_primary_expression, STATE 7326),
    (sym_comptime_expression, STATE 7017), (sym_transfer_expression, STATE 7017),
    (sym_not_operator, STATE 7969), (sym_boolean_operator, STATE 7969),
    (sym_binary_operator, STATE 7017), (sym_unary_operator, STATE 7017),
    (sym_comparison_operator, STATE 7969), (sym_lambda, STATE 7969),
    (sym_assignment, STATE 12425), (sym_augmented_assignment, STATE 12425),
    (sym_pattern_list, STATE 8578), (sym_yield, STATE 12425), (sym_attribute, STATE 6836),
    (sym_subscript, STATE 6838), (sym_call, STATE 6845), (sym_mlir_type, STATE 7017),
    (sym_list, STATE 7017), (sym_set, STATE 7017), (sym_tuple, STATE 7017),
    (sym_dictionary, STATE 7017), (sym_struct_literal, STATE 7017),
    (sym_list_comprehension, STATE 7017), (sym_dictionary_comprehension, STATE 7017),
    (sym_set_comprehension, STATE 7017), (sym_generator_expression, STATE 7017),
    (sym_parenthesized_expression, STATE 7017), (sym_conditional_expression, STATE 7969),
    (sym_concatenated_string, STATE 7017), (sym_string, STATE 6751), (sym_await, STATE 7017),
    (aux_sym_module_repeat1, STATE 927), (aux_sym_decorated_definition_repeat1, STATE 3670),
    (sym_identifier, ACTIONS 9), (anon_sym_import, ACTIONS 11), (anon_sym_from, ACTIONS 13),
    (anon_sym_LPAREN, ACTIONS 15), (anon_sym_STAR, ACTIONS 17), (anon_sym_print, ACTIONS 19),
    (anon_sym_comptime, ACTIONS 99), (anon_sym_assert, ACTIONS 23),
    (anon_sym___comptime_assert, ACTIONS 25), (anon_sym_return, ACTIONS 27),
    (anon_sym_del, ACTIONS 29), (anon_sym_raise, ACTIONS 31), (anon_sym_pass, ACTIONS 33),
    (anon_sym_break, ACTIONS 35), (anon_sym_continue, ACTIONS 37),
    (anon_sym___extension, ACTIONS 101), (anon_sym___mlir_region, ACTIONS 103),
    (anon_sym_if, ACTIONS 105), (anon_sym_match, ACTIONS 107), (anon_sym_async, ACTIONS 109),
    (anon_sym_for, ACTIONS 111), (anon_sym_while, ACTIONS 113), (anon_sym_try, ACTIONS 115),
    (anon_sym_with, ACTIONS 117), (anon_sym_def, ACTIONS 119), (anon_sym_fn, ACTIONS 119),
    (anon_sym_LBRACK, ACTIONS 59), (anon_sym_LBRACE, ACTIONS 61), (anon_sym_global, ACTIONS 63),
    (anon_sym_nonlocal, ACTIONS 65), (anon_sym_exec, ACTIONS 67), (anon_sym_type, ACTIONS 69),
    (anon_sym_class, ACTIONS 121), (anon_sym_struct, ACTIONS 121), (anon_sym_mut, ACTIONS 73),
    (anon_sym_out, ACTIONS 73), (anon_sym_trait, ACTIONS 123), (anon_sym_AT, ACTIONS 77),
    (anon_sym_DASH, ACTIONS 79), (anon_sym_PLUS, ACTIONS 79), (anon_sym_ref, ACTIONS 81),
    (anon_sym_var, ACTIONS 81), (anon_sym_not, ACTIONS 83), (anon_sym_TILDE, ACTIONS 79),
    (anon_sym_lambda, ACTIONS 85), (anon_sym_yield, ACTIONS 87), (sym_ellipsis, ACTIONS 89),
    (anon_sym___mlir_type, ACTIONS 91), (sym_integer, ACTIONS 93), (sym_float, ACTIONS 89),
    (anon_sym_await, ACTIONS 95), (sym_true, ACTIONS 93), (sym_false, ACTIONS 93),
    (sym_none, ACTIONS 93), (sym_comment, ACTIONS 3), (sym_line_continuation, ACTIONS 3),
    (sym__dedent, ACTIONS 125), (sym_string_start, ACTIONS 97)]"

definition parse_table_578 :: "(nat \<times> nat) list" where "parse_table_578 = [
    (sym__statement, STATE 927), (sym__simple_statements, STATE 927),
    (sym_import_statement, STATE 11814), (sym_future_import_statement, STATE 11814),
    (sym_import_from_statement, STATE 11814), (sym_print_statement, STATE 11814),
    (sym_assert_statement, STATE 11814), (sym_comptime_assert_statement, STATE 11814),
    (sym_expression_statement, STATE 11814), (sym_tuple_expression, STATE 12425),
    (sym_named_expression, STATE 7969), (sym__named_expression_lhs, STATE 12752),
    (sym_return_statement, STATE 11814), (sym_delete_statement, STATE 11814),
    (sym_raise_statement, STATE 11814), (sym_pass_statement, STATE 11814),
    (sym_break_statement, STATE 11814), (sym_continue_statement, STATE 11814),
    (sym_extension_definition, STATE 927), (sym_mlir_region, STATE 927),
    (sym_comptime_statement, STATE 927), (sym_if_statement, STATE 927),
    (sym_match_statement, STATE 927), (sym_for_statement, STATE 927),
    (sym_while_statement, STATE 927), (sym_try_statement, STATE 927),
    (sym_with_statement, STATE 927), (sym_function_definition, STATE 927),
    (sym_global_statement, STATE 11814), (sym_nonlocal_statement, STATE 11814),
    (sym_exec_statement, STATE 11814), (sym_type_alias_statement, STATE 11814),
    (sym_parameterized_alias_statement, STATE 11814), (sym_class_definition, STATE 927),
    (sym_trait_definition, STATE 927), (sym_decorated_definition, STATE 927),
    (sym_decorator, STATE 3670), (sym_block, STATE 5572), (sym_pattern, STATE 8086),
    (sym_tuple_pattern, STATE 8101), (sym_list_pattern, STATE 8101),
    (sym_list_splat_pattern, STATE 6819), (sym_as_pattern, STATE 7969),
    (sym_expression, STATE 9883), (sym_primary_expression, STATE 7326),
    (sym_comptime_expression, STATE 7017), (sym_transfer_expression, STATE 7017),
    (sym_not_operator, STATE 7969), (sym_boolean_operator, STATE 7969),
    (sym_binary_operator, STATE 7017), (sym_unary_operator, STATE 7017),
    (sym_comparison_operator, STATE 7969), (sym_lambda, STATE 7969),
    (sym_assignment, STATE 12425), (sym_augmented_assignment, STATE 12425),
    (sym_pattern_list, STATE 8578), (sym_yield, STATE 12425), (sym_attribute, STATE 6836),
    (sym_subscript, STATE 6838), (sym_call, STATE 6845), (sym_mlir_type, STATE 7017),
    (sym_list, STATE 7017), (sym_set, STATE 7017), (sym_tuple, STATE 7017),
    (sym_dictionary, STATE 7017), (sym_struct_literal, STATE 7017),
    (sym_list_comprehension, STATE 7017), (sym_dictionary_comprehension, STATE 7017),
    (sym_set_comprehension, STATE 7017), (sym_generator_expression, STATE 7017),
    (sym_parenthesized_expression, STATE 7017), (sym_conditional_expression, STATE 7969),
    (sym_concatenated_string, STATE 7017), (sym_string, STATE 6751), (sym_await, STATE 7017),
    (aux_sym_module_repeat1, STATE 927), (aux_sym_decorated_definition_repeat1, STATE 3670),
    (sym_identifier, ACTIONS 9), (anon_sym_import, ACTIONS 11), (anon_sym_from, ACTIONS 13),
    (anon_sym_LPAREN, ACTIONS 15), (anon_sym_STAR, ACTIONS 17), (anon_sym_print, ACTIONS 19),
    (anon_sym_comptime, ACTIONS 99), (anon_sym_assert, ACTIONS 23),
    (anon_sym___comptime_assert, ACTIONS 25), (anon_sym_return, ACTIONS 27),
    (anon_sym_del, ACTIONS 29), (anon_sym_raise, ACTIONS 31), (anon_sym_pass, ACTIONS 33),
    (anon_sym_break, ACTIONS 35), (anon_sym_continue, ACTIONS 37),
    (anon_sym___extension, ACTIONS 101), (anon_sym___mlir_region, ACTIONS 103),
    (anon_sym_if, ACTIONS 105), (anon_sym_match, ACTIONS 107), (anon_sym_async, ACTIONS 109),
    (anon_sym_for, ACTIONS 111), (anon_sym_while, ACTIONS 113), (anon_sym_try, ACTIONS 115),
    (anon_sym_with, ACTIONS 117), (anon_sym_def, ACTIONS 119), (anon_sym_fn, ACTIONS 119),
    (anon_sym_LBRACK, ACTIONS 59), (anon_sym_LBRACE, ACTIONS 61), (anon_sym_global, ACTIONS 63),
    (anon_sym_nonlocal, ACTIONS 65), (anon_sym_exec, ACTIONS 67), (anon_sym_type, ACTIONS 69),
    (anon_sym_class, ACTIONS 121), (anon_sym_struct, ACTIONS 121), (anon_sym_mut, ACTIONS 73),
    (anon_sym_out, ACTIONS 73), (anon_sym_trait, ACTIONS 123), (anon_sym_AT, ACTIONS 77),
    (anon_sym_DASH, ACTIONS 79), (anon_sym_PLUS, ACTIONS 79), (anon_sym_ref, ACTIONS 81),
    (anon_sym_var, ACTIONS 81), (anon_sym_not, ACTIONS 83), (anon_sym_TILDE, ACTIONS 79),
    (anon_sym_lambda, ACTIONS 85), (anon_sym_yield, ACTIONS 87), (sym_ellipsis, ACTIONS 89),
    (anon_sym___mlir_type, ACTIONS 91), (sym_integer, ACTIONS 93), (sym_float, ACTIONS 89),
    (anon_sym_await, ACTIONS 95), (sym_true, ACTIONS 93), (sym_false, ACTIONS 93),
    (sym_none, ACTIONS 93), (sym_comment, ACTIONS 3), (sym_line_continuation, ACTIONS 3),
    (sym__dedent, ACTIONS 125), (sym_string_start, ACTIONS 97)]"

definition parse_table_579 :: "(nat \<times> nat) list" where "parse_table_579 = [
    (sym__statement, STATE 927), (sym__simple_statements, STATE 927),
    (sym_import_statement, STATE 11814), (sym_future_import_statement, STATE 11814),
    (sym_import_from_statement, STATE 11814), (sym_print_statement, STATE 11814),
    (sym_assert_statement, STATE 11814), (sym_comptime_assert_statement, STATE 11814),
    (sym_expression_statement, STATE 11814), (sym_tuple_expression, STATE 12425),
    (sym_named_expression, STATE 7969), (sym__named_expression_lhs, STATE 12752),
    (sym_return_statement, STATE 11814), (sym_delete_statement, STATE 11814),
    (sym_raise_statement, STATE 11814), (sym_pass_statement, STATE 11814),
    (sym_break_statement, STATE 11814), (sym_continue_statement, STATE 11814),
    (sym_extension_definition, STATE 927), (sym_mlir_region, STATE 927),
    (sym_comptime_statement, STATE 927), (sym_if_statement, STATE 927),
    (sym_match_statement, STATE 927), (sym_for_statement, STATE 927),
    (sym_while_statement, STATE 927), (sym_try_statement, STATE 927),
    (sym_with_statement, STATE 927), (sym_function_definition, STATE 927),
    (sym_global_statement, STATE 11814), (sym_nonlocal_statement, STATE 11814),
    (sym_exec_statement, STATE 11814), (sym_type_alias_statement, STATE 11814),
    (sym_parameterized_alias_statement, STATE 11814), (sym_class_definition, STATE 927),
    (sym_trait_definition, STATE 927), (sym_decorated_definition, STATE 927),
    (sym_decorator, STATE 3670), (sym_block, STATE 5576), (sym_pattern, STATE 8086),
    (sym_tuple_pattern, STATE 8101), (sym_list_pattern, STATE 8101),
    (sym_list_splat_pattern, STATE 6819), (sym_as_pattern, STATE 7969),
    (sym_expression, STATE 9883), (sym_primary_expression, STATE 7326),
    (sym_comptime_expression, STATE 7017), (sym_transfer_expression, STATE 7017),
    (sym_not_operator, STATE 7969), (sym_boolean_operator, STATE 7969),
    (sym_binary_operator, STATE 7017), (sym_unary_operator, STATE 7017),
    (sym_comparison_operator, STATE 7969), (sym_lambda, STATE 7969),
    (sym_assignment, STATE 12425), (sym_augmented_assignment, STATE 12425),
    (sym_pattern_list, STATE 8578), (sym_yield, STATE 12425), (sym_attribute, STATE 6836),
    (sym_subscript, STATE 6838), (sym_call, STATE 6845), (sym_mlir_type, STATE 7017),
    (sym_list, STATE 7017), (sym_set, STATE 7017), (sym_tuple, STATE 7017),
    (sym_dictionary, STATE 7017), (sym_struct_literal, STATE 7017),
    (sym_list_comprehension, STATE 7017), (sym_dictionary_comprehension, STATE 7017),
    (sym_set_comprehension, STATE 7017), (sym_generator_expression, STATE 7017),
    (sym_parenthesized_expression, STATE 7017), (sym_conditional_expression, STATE 7969),
    (sym_concatenated_string, STATE 7017), (sym_string, STATE 6751), (sym_await, STATE 7017),
    (aux_sym_module_repeat1, STATE 927), (aux_sym_decorated_definition_repeat1, STATE 3670),
    (sym_identifier, ACTIONS 9), (anon_sym_import, ACTIONS 11), (anon_sym_from, ACTIONS 13),
    (anon_sym_LPAREN, ACTIONS 15), (anon_sym_STAR, ACTIONS 17), (anon_sym_print, ACTIONS 19),
    (anon_sym_comptime, ACTIONS 99), (anon_sym_assert, ACTIONS 23),
    (anon_sym___comptime_assert, ACTIONS 25), (anon_sym_return, ACTIONS 27),
    (anon_sym_del, ACTIONS 29), (anon_sym_raise, ACTIONS 31), (anon_sym_pass, ACTIONS 33),
    (anon_sym_break, ACTIONS 35), (anon_sym_continue, ACTIONS 37),
    (anon_sym___extension, ACTIONS 101), (anon_sym___mlir_region, ACTIONS 103),
    (anon_sym_if, ACTIONS 105), (anon_sym_match, ACTIONS 107), (anon_sym_async, ACTIONS 109),
    (anon_sym_for, ACTIONS 111), (anon_sym_while, ACTIONS 113), (anon_sym_try, ACTIONS 115),
    (anon_sym_with, ACTIONS 117), (anon_sym_def, ACTIONS 119), (anon_sym_fn, ACTIONS 119),
    (anon_sym_LBRACK, ACTIONS 59), (anon_sym_LBRACE, ACTIONS 61), (anon_sym_global, ACTIONS 63),
    (anon_sym_nonlocal, ACTIONS 65), (anon_sym_exec, ACTIONS 67), (anon_sym_type, ACTIONS 69),
    (anon_sym_class, ACTIONS 121), (anon_sym_struct, ACTIONS 121), (anon_sym_mut, ACTIONS 73),
    (anon_sym_out, ACTIONS 73), (anon_sym_trait, ACTIONS 123), (anon_sym_AT, ACTIONS 77),
    (anon_sym_DASH, ACTIONS 79), (anon_sym_PLUS, ACTIONS 79), (anon_sym_ref, ACTIONS 81),
    (anon_sym_var, ACTIONS 81), (anon_sym_not, ACTIONS 83), (anon_sym_TILDE, ACTIONS 79),
    (anon_sym_lambda, ACTIONS 85), (anon_sym_yield, ACTIONS 87), (sym_ellipsis, ACTIONS 89),
    (anon_sym___mlir_type, ACTIONS 91), (sym_integer, ACTIONS 93), (sym_float, ACTIONS 89),
    (anon_sym_await, ACTIONS 95), (sym_true, ACTIONS 93), (sym_false, ACTIONS 93),
    (sym_none, ACTIONS 93), (sym_comment, ACTIONS 3), (sym_line_continuation, ACTIONS 3),
    (sym__dedent, ACTIONS 125), (sym_string_start, ACTIONS 97)]"

definition parse_table_580 :: "(nat \<times> nat) list" where "parse_table_580 = [
    (sym__statement, STATE 927), (sym__simple_statements, STATE 927),
    (sym_import_statement, STATE 11814), (sym_future_import_statement, STATE 11814),
    (sym_import_from_statement, STATE 11814), (sym_print_statement, STATE 11814),
    (sym_assert_statement, STATE 11814), (sym_comptime_assert_statement, STATE 11814),
    (sym_expression_statement, STATE 11814), (sym_tuple_expression, STATE 12425),
    (sym_named_expression, STATE 7969), (sym__named_expression_lhs, STATE 12752),
    (sym_return_statement, STATE 11814), (sym_delete_statement, STATE 11814),
    (sym_raise_statement, STATE 11814), (sym_pass_statement, STATE 11814),
    (sym_break_statement, STATE 11814), (sym_continue_statement, STATE 11814),
    (sym_extension_definition, STATE 927), (sym_mlir_region, STATE 927),
    (sym_comptime_statement, STATE 927), (sym_if_statement, STATE 927),
    (sym_match_statement, STATE 927), (sym_for_statement, STATE 927),
    (sym_while_statement, STATE 927), (sym_try_statement, STATE 927),
    (sym_with_statement, STATE 927), (sym_function_definition, STATE 927),
    (sym_global_statement, STATE 11814), (sym_nonlocal_statement, STATE 11814),
    (sym_exec_statement, STATE 11814), (sym_type_alias_statement, STATE 11814),
    (sym_parameterized_alias_statement, STATE 11814), (sym_class_definition, STATE 927),
    (sym_trait_definition, STATE 927), (sym_decorated_definition, STATE 927),
    (sym_decorator, STATE 3670), (sym_block, STATE 5579), (sym_pattern, STATE 8086),
    (sym_tuple_pattern, STATE 8101), (sym_list_pattern, STATE 8101),
    (sym_list_splat_pattern, STATE 6819), (sym_as_pattern, STATE 7969),
    (sym_expression, STATE 9883), (sym_primary_expression, STATE 7326),
    (sym_comptime_expression, STATE 7017), (sym_transfer_expression, STATE 7017),
    (sym_not_operator, STATE 7969), (sym_boolean_operator, STATE 7969),
    (sym_binary_operator, STATE 7017), (sym_unary_operator, STATE 7017),
    (sym_comparison_operator, STATE 7969), (sym_lambda, STATE 7969),
    (sym_assignment, STATE 12425), (sym_augmented_assignment, STATE 12425),
    (sym_pattern_list, STATE 8578), (sym_yield, STATE 12425), (sym_attribute, STATE 6836),
    (sym_subscript, STATE 6838), (sym_call, STATE 6845), (sym_mlir_type, STATE 7017),
    (sym_list, STATE 7017), (sym_set, STATE 7017), (sym_tuple, STATE 7017),
    (sym_dictionary, STATE 7017), (sym_struct_literal, STATE 7017),
    (sym_list_comprehension, STATE 7017), (sym_dictionary_comprehension, STATE 7017),
    (sym_set_comprehension, STATE 7017), (sym_generator_expression, STATE 7017),
    (sym_parenthesized_expression, STATE 7017), (sym_conditional_expression, STATE 7969),
    (sym_concatenated_string, STATE 7017), (sym_string, STATE 6751), (sym_await, STATE 7017),
    (aux_sym_module_repeat1, STATE 927), (aux_sym_decorated_definition_repeat1, STATE 3670),
    (sym_identifier, ACTIONS 9), (anon_sym_import, ACTIONS 11), (anon_sym_from, ACTIONS 13),
    (anon_sym_LPAREN, ACTIONS 15), (anon_sym_STAR, ACTIONS 17), (anon_sym_print, ACTIONS 19),
    (anon_sym_comptime, ACTIONS 99), (anon_sym_assert, ACTIONS 23),
    (anon_sym___comptime_assert, ACTIONS 25), (anon_sym_return, ACTIONS 27),
    (anon_sym_del, ACTIONS 29), (anon_sym_raise, ACTIONS 31), (anon_sym_pass, ACTIONS 33),
    (anon_sym_break, ACTIONS 35), (anon_sym_continue, ACTIONS 37),
    (anon_sym___extension, ACTIONS 101), (anon_sym___mlir_region, ACTIONS 103),
    (anon_sym_if, ACTIONS 105), (anon_sym_match, ACTIONS 107), (anon_sym_async, ACTIONS 109),
    (anon_sym_for, ACTIONS 111), (anon_sym_while, ACTIONS 113), (anon_sym_try, ACTIONS 115),
    (anon_sym_with, ACTIONS 117), (anon_sym_def, ACTIONS 119), (anon_sym_fn, ACTIONS 119),
    (anon_sym_LBRACK, ACTIONS 59), (anon_sym_LBRACE, ACTIONS 61), (anon_sym_global, ACTIONS 63),
    (anon_sym_nonlocal, ACTIONS 65), (anon_sym_exec, ACTIONS 67), (anon_sym_type, ACTIONS 69),
    (anon_sym_class, ACTIONS 121), (anon_sym_struct, ACTIONS 121), (anon_sym_mut, ACTIONS 73),
    (anon_sym_out, ACTIONS 73), (anon_sym_trait, ACTIONS 123), (anon_sym_AT, ACTIONS 77),
    (anon_sym_DASH, ACTIONS 79), (anon_sym_PLUS, ACTIONS 79), (anon_sym_ref, ACTIONS 81),
    (anon_sym_var, ACTIONS 81), (anon_sym_not, ACTIONS 83), (anon_sym_TILDE, ACTIONS 79),
    (anon_sym_lambda, ACTIONS 85), (anon_sym_yield, ACTIONS 87), (sym_ellipsis, ACTIONS 89),
    (anon_sym___mlir_type, ACTIONS 91), (sym_integer, ACTIONS 93), (sym_float, ACTIONS 89),
    (anon_sym_await, ACTIONS 95), (sym_true, ACTIONS 93), (sym_false, ACTIONS 93),
    (sym_none, ACTIONS 93), (sym_comment, ACTIONS 3), (sym_line_continuation, ACTIONS 3),
    (sym__dedent, ACTIONS 125), (sym_string_start, ACTIONS 97)]"

definition parse_table_581 :: "(nat \<times> nat) list" where "parse_table_581 = [
    (sym__statement, STATE 927), (sym__simple_statements, STATE 927),
    (sym_import_statement, STATE 11814), (sym_future_import_statement, STATE 11814),
    (sym_import_from_statement, STATE 11814), (sym_print_statement, STATE 11814),
    (sym_assert_statement, STATE 11814), (sym_comptime_assert_statement, STATE 11814),
    (sym_expression_statement, STATE 11814), (sym_tuple_expression, STATE 12425),
    (sym_named_expression, STATE 7969), (sym__named_expression_lhs, STATE 12752),
    (sym_return_statement, STATE 11814), (sym_delete_statement, STATE 11814),
    (sym_raise_statement, STATE 11814), (sym_pass_statement, STATE 11814),
    (sym_break_statement, STATE 11814), (sym_continue_statement, STATE 11814),
    (sym_extension_definition, STATE 927), (sym_mlir_region, STATE 927),
    (sym_comptime_statement, STATE 927), (sym_if_statement, STATE 927),
    (sym_match_statement, STATE 927), (sym_for_statement, STATE 927),
    (sym_while_statement, STATE 927), (sym_try_statement, STATE 927),
    (sym_with_statement, STATE 927), (sym_function_definition, STATE 927),
    (sym_global_statement, STATE 11814), (sym_nonlocal_statement, STATE 11814),
    (sym_exec_statement, STATE 11814), (sym_type_alias_statement, STATE 11814),
    (sym_parameterized_alias_statement, STATE 11814), (sym_class_definition, STATE 927),
    (sym_trait_definition, STATE 927), (sym_decorated_definition, STATE 927),
    (sym_decorator, STATE 3670), (sym_block, STATE 5586), (sym_pattern, STATE 8086),
    (sym_tuple_pattern, STATE 8101), (sym_list_pattern, STATE 8101),
    (sym_list_splat_pattern, STATE 6819), (sym_as_pattern, STATE 7969),
    (sym_expression, STATE 9883), (sym_primary_expression, STATE 7326),
    (sym_comptime_expression, STATE 7017), (sym_transfer_expression, STATE 7017),
    (sym_not_operator, STATE 7969), (sym_boolean_operator, STATE 7969),
    (sym_binary_operator, STATE 7017), (sym_unary_operator, STATE 7017),
    (sym_comparison_operator, STATE 7969), (sym_lambda, STATE 7969),
    (sym_assignment, STATE 12425), (sym_augmented_assignment, STATE 12425),
    (sym_pattern_list, STATE 8578), (sym_yield, STATE 12425), (sym_attribute, STATE 6836),
    (sym_subscript, STATE 6838), (sym_call, STATE 6845), (sym_mlir_type, STATE 7017),
    (sym_list, STATE 7017), (sym_set, STATE 7017), (sym_tuple, STATE 7017),
    (sym_dictionary, STATE 7017), (sym_struct_literal, STATE 7017),
    (sym_list_comprehension, STATE 7017), (sym_dictionary_comprehension, STATE 7017),
    (sym_set_comprehension, STATE 7017), (sym_generator_expression, STATE 7017),
    (sym_parenthesized_expression, STATE 7017), (sym_conditional_expression, STATE 7969),
    (sym_concatenated_string, STATE 7017), (sym_string, STATE 6751), (sym_await, STATE 7017),
    (aux_sym_module_repeat1, STATE 927), (aux_sym_decorated_definition_repeat1, STATE 3670),
    (sym_identifier, ACTIONS 9), (anon_sym_import, ACTIONS 11), (anon_sym_from, ACTIONS 13),
    (anon_sym_LPAREN, ACTIONS 15), (anon_sym_STAR, ACTIONS 17), (anon_sym_print, ACTIONS 19),
    (anon_sym_comptime, ACTIONS 99), (anon_sym_assert, ACTIONS 23),
    (anon_sym___comptime_assert, ACTIONS 25), (anon_sym_return, ACTIONS 27),
    (anon_sym_del, ACTIONS 29), (anon_sym_raise, ACTIONS 31), (anon_sym_pass, ACTIONS 33),
    (anon_sym_break, ACTIONS 35), (anon_sym_continue, ACTIONS 37),
    (anon_sym___extension, ACTIONS 101), (anon_sym___mlir_region, ACTIONS 103),
    (anon_sym_if, ACTIONS 105), (anon_sym_match, ACTIONS 107), (anon_sym_async, ACTIONS 109),
    (anon_sym_for, ACTIONS 111), (anon_sym_while, ACTIONS 113), (anon_sym_try, ACTIONS 115),
    (anon_sym_with, ACTIONS 117), (anon_sym_def, ACTIONS 119), (anon_sym_fn, ACTIONS 119),
    (anon_sym_LBRACK, ACTIONS 59), (anon_sym_LBRACE, ACTIONS 61), (anon_sym_global, ACTIONS 63),
    (anon_sym_nonlocal, ACTIONS 65), (anon_sym_exec, ACTIONS 67), (anon_sym_type, ACTIONS 69),
    (anon_sym_class, ACTIONS 121), (anon_sym_struct, ACTIONS 121), (anon_sym_mut, ACTIONS 73),
    (anon_sym_out, ACTIONS 73), (anon_sym_trait, ACTIONS 123), (anon_sym_AT, ACTIONS 77),
    (anon_sym_DASH, ACTIONS 79), (anon_sym_PLUS, ACTIONS 79), (anon_sym_ref, ACTIONS 81),
    (anon_sym_var, ACTIONS 81), (anon_sym_not, ACTIONS 83), (anon_sym_TILDE, ACTIONS 79),
    (anon_sym_lambda, ACTIONS 85), (anon_sym_yield, ACTIONS 87), (sym_ellipsis, ACTIONS 89),
    (anon_sym___mlir_type, ACTIONS 91), (sym_integer, ACTIONS 93), (sym_float, ACTIONS 89),
    (anon_sym_await, ACTIONS 95), (sym_true, ACTIONS 93), (sym_false, ACTIONS 93),
    (sym_none, ACTIONS 93), (sym_comment, ACTIONS 3), (sym_line_continuation, ACTIONS 3),
    (sym__dedent, ACTIONS 125), (sym_string_start, ACTIONS 97)]"

definition parse_table_582 :: "(nat \<times> nat) list" where "parse_table_582 = [
    (sym__statement, STATE 927), (sym__simple_statements, STATE 927),
    (sym_import_statement, STATE 11814), (sym_future_import_statement, STATE 11814),
    (sym_import_from_statement, STATE 11814), (sym_print_statement, STATE 11814),
    (sym_assert_statement, STATE 11814), (sym_comptime_assert_statement, STATE 11814),
    (sym_expression_statement, STATE 11814), (sym_tuple_expression, STATE 12425),
    (sym_named_expression, STATE 7969), (sym__named_expression_lhs, STATE 12752),
    (sym_return_statement, STATE 11814), (sym_delete_statement, STATE 11814),
    (sym_raise_statement, STATE 11814), (sym_pass_statement, STATE 11814),
    (sym_break_statement, STATE 11814), (sym_continue_statement, STATE 11814),
    (sym_extension_definition, STATE 927), (sym_mlir_region, STATE 927),
    (sym_comptime_statement, STATE 927), (sym_if_statement, STATE 927),
    (sym_match_statement, STATE 927), (sym_for_statement, STATE 927),
    (sym_while_statement, STATE 927), (sym_try_statement, STATE 927),
    (sym_with_statement, STATE 927), (sym_function_definition, STATE 927),
    (sym_global_statement, STATE 11814), (sym_nonlocal_statement, STATE 11814),
    (sym_exec_statement, STATE 11814), (sym_type_alias_statement, STATE 11814),
    (sym_parameterized_alias_statement, STATE 11814), (sym_class_definition, STATE 927),
    (sym_trait_definition, STATE 927), (sym_decorated_definition, STATE 927),
    (sym_decorator, STATE 3670), (sym_block, STATE 5591), (sym_pattern, STATE 8086),
    (sym_tuple_pattern, STATE 8101), (sym_list_pattern, STATE 8101),
    (sym_list_splat_pattern, STATE 6819), (sym_as_pattern, STATE 7969),
    (sym_expression, STATE 9883), (sym_primary_expression, STATE 7326),
    (sym_comptime_expression, STATE 7017), (sym_transfer_expression, STATE 7017),
    (sym_not_operator, STATE 7969), (sym_boolean_operator, STATE 7969),
    (sym_binary_operator, STATE 7017), (sym_unary_operator, STATE 7017),
    (sym_comparison_operator, STATE 7969), (sym_lambda, STATE 7969),
    (sym_assignment, STATE 12425), (sym_augmented_assignment, STATE 12425),
    (sym_pattern_list, STATE 8578), (sym_yield, STATE 12425), (sym_attribute, STATE 6836),
    (sym_subscript, STATE 6838), (sym_call, STATE 6845), (sym_mlir_type, STATE 7017),
    (sym_list, STATE 7017), (sym_set, STATE 7017), (sym_tuple, STATE 7017),
    (sym_dictionary, STATE 7017), (sym_struct_literal, STATE 7017),
    (sym_list_comprehension, STATE 7017), (sym_dictionary_comprehension, STATE 7017),
    (sym_set_comprehension, STATE 7017), (sym_generator_expression, STATE 7017),
    (sym_parenthesized_expression, STATE 7017), (sym_conditional_expression, STATE 7969),
    (sym_concatenated_string, STATE 7017), (sym_string, STATE 6751), (sym_await, STATE 7017),
    (aux_sym_module_repeat1, STATE 927), (aux_sym_decorated_definition_repeat1, STATE 3670),
    (sym_identifier, ACTIONS 9), (anon_sym_import, ACTIONS 11), (anon_sym_from, ACTIONS 13),
    (anon_sym_LPAREN, ACTIONS 15), (anon_sym_STAR, ACTIONS 17), (anon_sym_print, ACTIONS 19),
    (anon_sym_comptime, ACTIONS 99), (anon_sym_assert, ACTIONS 23),
    (anon_sym___comptime_assert, ACTIONS 25), (anon_sym_return, ACTIONS 27),
    (anon_sym_del, ACTIONS 29), (anon_sym_raise, ACTIONS 31), (anon_sym_pass, ACTIONS 33),
    (anon_sym_break, ACTIONS 35), (anon_sym_continue, ACTIONS 37),
    (anon_sym___extension, ACTIONS 101), (anon_sym___mlir_region, ACTIONS 103),
    (anon_sym_if, ACTIONS 105), (anon_sym_match, ACTIONS 107), (anon_sym_async, ACTIONS 109),
    (anon_sym_for, ACTIONS 111), (anon_sym_while, ACTIONS 113), (anon_sym_try, ACTIONS 115),
    (anon_sym_with, ACTIONS 117), (anon_sym_def, ACTIONS 119), (anon_sym_fn, ACTIONS 119),
    (anon_sym_LBRACK, ACTIONS 59), (anon_sym_LBRACE, ACTIONS 61), (anon_sym_global, ACTIONS 63),
    (anon_sym_nonlocal, ACTIONS 65), (anon_sym_exec, ACTIONS 67), (anon_sym_type, ACTIONS 69),
    (anon_sym_class, ACTIONS 121), (anon_sym_struct, ACTIONS 121), (anon_sym_mut, ACTIONS 73),
    (anon_sym_out, ACTIONS 73), (anon_sym_trait, ACTIONS 123), (anon_sym_AT, ACTIONS 77),
    (anon_sym_DASH, ACTIONS 79), (anon_sym_PLUS, ACTIONS 79), (anon_sym_ref, ACTIONS 81),
    (anon_sym_var, ACTIONS 81), (anon_sym_not, ACTIONS 83), (anon_sym_TILDE, ACTIONS 79),
    (anon_sym_lambda, ACTIONS 85), (anon_sym_yield, ACTIONS 87), (sym_ellipsis, ACTIONS 89),
    (anon_sym___mlir_type, ACTIONS 91), (sym_integer, ACTIONS 93), (sym_float, ACTIONS 89),
    (anon_sym_await, ACTIONS 95), (sym_true, ACTIONS 93), (sym_false, ACTIONS 93),
    (sym_none, ACTIONS 93), (sym_comment, ACTIONS 3), (sym_line_continuation, ACTIONS 3),
    (sym__dedent, ACTIONS 125), (sym_string_start, ACTIONS 97)]"

definition parse_table_583 :: "(nat \<times> nat) list" where "parse_table_583 = [
    (sym__statement, STATE 927), (sym__simple_statements, STATE 927),
    (sym_import_statement, STATE 11814), (sym_future_import_statement, STATE 11814),
    (sym_import_from_statement, STATE 11814), (sym_print_statement, STATE 11814),
    (sym_assert_statement, STATE 11814), (sym_comptime_assert_statement, STATE 11814),
    (sym_expression_statement, STATE 11814), (sym_tuple_expression, STATE 12425),
    (sym_named_expression, STATE 7969), (sym__named_expression_lhs, STATE 12752),
    (sym_return_statement, STATE 11814), (sym_delete_statement, STATE 11814),
    (sym_raise_statement, STATE 11814), (sym_pass_statement, STATE 11814),
    (sym_break_statement, STATE 11814), (sym_continue_statement, STATE 11814),
    (sym_extension_definition, STATE 927), (sym_mlir_region, STATE 927),
    (sym_comptime_statement, STATE 927), (sym_if_statement, STATE 927),
    (sym_match_statement, STATE 927), (sym_for_statement, STATE 927),
    (sym_while_statement, STATE 927), (sym_try_statement, STATE 927),
    (sym_with_statement, STATE 927), (sym_function_definition, STATE 927),
    (sym_global_statement, STATE 11814), (sym_nonlocal_statement, STATE 11814),
    (sym_exec_statement, STATE 11814), (sym_type_alias_statement, STATE 11814),
    (sym_parameterized_alias_statement, STATE 11814), (sym_class_definition, STATE 927),
    (sym_trait_definition, STATE 927), (sym_decorated_definition, STATE 927),
    (sym_decorator, STATE 3670), (sym_block, STATE 5607), (sym_pattern, STATE 8086),
    (sym_tuple_pattern, STATE 8101), (sym_list_pattern, STATE 8101),
    (sym_list_splat_pattern, STATE 6819), (sym_as_pattern, STATE 7969),
    (sym_expression, STATE 9883), (sym_primary_expression, STATE 7326),
    (sym_comptime_expression, STATE 7017), (sym_transfer_expression, STATE 7017),
    (sym_not_operator, STATE 7969), (sym_boolean_operator, STATE 7969),
    (sym_binary_operator, STATE 7017), (sym_unary_operator, STATE 7017),
    (sym_comparison_operator, STATE 7969), (sym_lambda, STATE 7969),
    (sym_assignment, STATE 12425), (sym_augmented_assignment, STATE 12425),
    (sym_pattern_list, STATE 8578), (sym_yield, STATE 12425), (sym_attribute, STATE 6836),
    (sym_subscript, STATE 6838), (sym_call, STATE 6845), (sym_mlir_type, STATE 7017),
    (sym_list, STATE 7017), (sym_set, STATE 7017), (sym_tuple, STATE 7017),
    (sym_dictionary, STATE 7017), (sym_struct_literal, STATE 7017),
    (sym_list_comprehension, STATE 7017), (sym_dictionary_comprehension, STATE 7017),
    (sym_set_comprehension, STATE 7017), (sym_generator_expression, STATE 7017),
    (sym_parenthesized_expression, STATE 7017), (sym_conditional_expression, STATE 7969),
    (sym_concatenated_string, STATE 7017), (sym_string, STATE 6751), (sym_await, STATE 7017),
    (aux_sym_module_repeat1, STATE 927), (aux_sym_decorated_definition_repeat1, STATE 3670),
    (sym_identifier, ACTIONS 9), (anon_sym_import, ACTIONS 11), (anon_sym_from, ACTIONS 13),
    (anon_sym_LPAREN, ACTIONS 15), (anon_sym_STAR, ACTIONS 17), (anon_sym_print, ACTIONS 19),
    (anon_sym_comptime, ACTIONS 99), (anon_sym_assert, ACTIONS 23),
    (anon_sym___comptime_assert, ACTIONS 25), (anon_sym_return, ACTIONS 27),
    (anon_sym_del, ACTIONS 29), (anon_sym_raise, ACTIONS 31), (anon_sym_pass, ACTIONS 33),
    (anon_sym_break, ACTIONS 35), (anon_sym_continue, ACTIONS 37),
    (anon_sym___extension, ACTIONS 101), (anon_sym___mlir_region, ACTIONS 103),
    (anon_sym_if, ACTIONS 105), (anon_sym_match, ACTIONS 107), (anon_sym_async, ACTIONS 109),
    (anon_sym_for, ACTIONS 111), (anon_sym_while, ACTIONS 113), (anon_sym_try, ACTIONS 115),
    (anon_sym_with, ACTIONS 117), (anon_sym_def, ACTIONS 119), (anon_sym_fn, ACTIONS 119),
    (anon_sym_LBRACK, ACTIONS 59), (anon_sym_LBRACE, ACTIONS 61), (anon_sym_global, ACTIONS 63),
    (anon_sym_nonlocal, ACTIONS 65), (anon_sym_exec, ACTIONS 67), (anon_sym_type, ACTIONS 69),
    (anon_sym_class, ACTIONS 121), (anon_sym_struct, ACTIONS 121), (anon_sym_mut, ACTIONS 73),
    (anon_sym_out, ACTIONS 73), (anon_sym_trait, ACTIONS 123), (anon_sym_AT, ACTIONS 77),
    (anon_sym_DASH, ACTIONS 79), (anon_sym_PLUS, ACTIONS 79), (anon_sym_ref, ACTIONS 81),
    (anon_sym_var, ACTIONS 81), (anon_sym_not, ACTIONS 83), (anon_sym_TILDE, ACTIONS 79),
    (anon_sym_lambda, ACTIONS 85), (anon_sym_yield, ACTIONS 87), (sym_ellipsis, ACTIONS 89),
    (anon_sym___mlir_type, ACTIONS 91), (sym_integer, ACTIONS 93), (sym_float, ACTIONS 89),
    (anon_sym_await, ACTIONS 95), (sym_true, ACTIONS 93), (sym_false, ACTIONS 93),
    (sym_none, ACTIONS 93), (sym_comment, ACTIONS 3), (sym_line_continuation, ACTIONS 3),
    (sym__dedent, ACTIONS 125), (sym_string_start, ACTIONS 97)]"

definition parse_table_584 :: "(nat \<times> nat) list" where "parse_table_584 = [
    (sym__statement, STATE 927), (sym__simple_statements, STATE 927),
    (sym_import_statement, STATE 11814), (sym_future_import_statement, STATE 11814),
    (sym_import_from_statement, STATE 11814), (sym_print_statement, STATE 11814),
    (sym_assert_statement, STATE 11814), (sym_comptime_assert_statement, STATE 11814),
    (sym_expression_statement, STATE 11814), (sym_tuple_expression, STATE 12425),
    (sym_named_expression, STATE 7969), (sym__named_expression_lhs, STATE 12752),
    (sym_return_statement, STATE 11814), (sym_delete_statement, STATE 11814),
    (sym_raise_statement, STATE 11814), (sym_pass_statement, STATE 11814),
    (sym_break_statement, STATE 11814), (sym_continue_statement, STATE 11814),
    (sym_extension_definition, STATE 927), (sym_mlir_region, STATE 927),
    (sym_comptime_statement, STATE 927), (sym_if_statement, STATE 927),
    (sym_match_statement, STATE 927), (sym_for_statement, STATE 927),
    (sym_while_statement, STATE 927), (sym_try_statement, STATE 927),
    (sym_with_statement, STATE 927), (sym_function_definition, STATE 927),
    (sym_global_statement, STATE 11814), (sym_nonlocal_statement, STATE 11814),
    (sym_exec_statement, STATE 11814), (sym_type_alias_statement, STATE 11814),
    (sym_parameterized_alias_statement, STATE 11814), (sym_class_definition, STATE 927),
    (sym_trait_definition, STATE 927), (sym_decorated_definition, STATE 927),
    (sym_decorator, STATE 3670), (sym_block, STATE 5610), (sym_pattern, STATE 8086),
    (sym_tuple_pattern, STATE 8101), (sym_list_pattern, STATE 8101),
    (sym_list_splat_pattern, STATE 6819), (sym_as_pattern, STATE 7969),
    (sym_expression, STATE 9883), (sym_primary_expression, STATE 7326),
    (sym_comptime_expression, STATE 7017), (sym_transfer_expression, STATE 7017),
    (sym_not_operator, STATE 7969), (sym_boolean_operator, STATE 7969),
    (sym_binary_operator, STATE 7017), (sym_unary_operator, STATE 7017),
    (sym_comparison_operator, STATE 7969), (sym_lambda, STATE 7969),
    (sym_assignment, STATE 12425), (sym_augmented_assignment, STATE 12425),
    (sym_pattern_list, STATE 8578), (sym_yield, STATE 12425), (sym_attribute, STATE 6836),
    (sym_subscript, STATE 6838), (sym_call, STATE 6845), (sym_mlir_type, STATE 7017),
    (sym_list, STATE 7017), (sym_set, STATE 7017), (sym_tuple, STATE 7017),
    (sym_dictionary, STATE 7017), (sym_struct_literal, STATE 7017),
    (sym_list_comprehension, STATE 7017), (sym_dictionary_comprehension, STATE 7017),
    (sym_set_comprehension, STATE 7017), (sym_generator_expression, STATE 7017),
    (sym_parenthesized_expression, STATE 7017), (sym_conditional_expression, STATE 7969),
    (sym_concatenated_string, STATE 7017), (sym_string, STATE 6751), (sym_await, STATE 7017),
    (aux_sym_module_repeat1, STATE 927), (aux_sym_decorated_definition_repeat1, STATE 3670),
    (sym_identifier, ACTIONS 9), (anon_sym_import, ACTIONS 11), (anon_sym_from, ACTIONS 13),
    (anon_sym_LPAREN, ACTIONS 15), (anon_sym_STAR, ACTIONS 17), (anon_sym_print, ACTIONS 19),
    (anon_sym_comptime, ACTIONS 99), (anon_sym_assert, ACTIONS 23),
    (anon_sym___comptime_assert, ACTIONS 25), (anon_sym_return, ACTIONS 27),
    (anon_sym_del, ACTIONS 29), (anon_sym_raise, ACTIONS 31), (anon_sym_pass, ACTIONS 33),
    (anon_sym_break, ACTIONS 35), (anon_sym_continue, ACTIONS 37),
    (anon_sym___extension, ACTIONS 101), (anon_sym___mlir_region, ACTIONS 103),
    (anon_sym_if, ACTIONS 105), (anon_sym_match, ACTIONS 107), (anon_sym_async, ACTIONS 109),
    (anon_sym_for, ACTIONS 111), (anon_sym_while, ACTIONS 113), (anon_sym_try, ACTIONS 115),
    (anon_sym_with, ACTIONS 117), (anon_sym_def, ACTIONS 119), (anon_sym_fn, ACTIONS 119),
    (anon_sym_LBRACK, ACTIONS 59), (anon_sym_LBRACE, ACTIONS 61), (anon_sym_global, ACTIONS 63),
    (anon_sym_nonlocal, ACTIONS 65), (anon_sym_exec, ACTIONS 67), (anon_sym_type, ACTIONS 69),
    (anon_sym_class, ACTIONS 121), (anon_sym_struct, ACTIONS 121), (anon_sym_mut, ACTIONS 73),
    (anon_sym_out, ACTIONS 73), (anon_sym_trait, ACTIONS 123), (anon_sym_AT, ACTIONS 77),
    (anon_sym_DASH, ACTIONS 79), (anon_sym_PLUS, ACTIONS 79), (anon_sym_ref, ACTIONS 81),
    (anon_sym_var, ACTIONS 81), (anon_sym_not, ACTIONS 83), (anon_sym_TILDE, ACTIONS 79),
    (anon_sym_lambda, ACTIONS 85), (anon_sym_yield, ACTIONS 87), (sym_ellipsis, ACTIONS 89),
    (anon_sym___mlir_type, ACTIONS 91), (sym_integer, ACTIONS 93), (sym_float, ACTIONS 89),
    (anon_sym_await, ACTIONS 95), (sym_true, ACTIONS 93), (sym_false, ACTIONS 93),
    (sym_none, ACTIONS 93), (sym_comment, ACTIONS 3), (sym_line_continuation, ACTIONS 3),
    (sym__dedent, ACTIONS 125), (sym_string_start, ACTIONS 97)]"

definition parse_table_585 :: "(nat \<times> nat) list" where "parse_table_585 = [
    (sym__statement, STATE 927), (sym__simple_statements, STATE 927),
    (sym_import_statement, STATE 11814), (sym_future_import_statement, STATE 11814),
    (sym_import_from_statement, STATE 11814), (sym_print_statement, STATE 11814),
    (sym_assert_statement, STATE 11814), (sym_comptime_assert_statement, STATE 11814),
    (sym_expression_statement, STATE 11814), (sym_tuple_expression, STATE 12425),
    (sym_named_expression, STATE 7969), (sym__named_expression_lhs, STATE 12752),
    (sym_return_statement, STATE 11814), (sym_delete_statement, STATE 11814),
    (sym_raise_statement, STATE 11814), (sym_pass_statement, STATE 11814),
    (sym_break_statement, STATE 11814), (sym_continue_statement, STATE 11814),
    (sym_extension_definition, STATE 927), (sym_mlir_region, STATE 927),
    (sym_comptime_statement, STATE 927), (sym_if_statement, STATE 927),
    (sym_match_statement, STATE 927), (sym_for_statement, STATE 927),
    (sym_while_statement, STATE 927), (sym_try_statement, STATE 927),
    (sym_with_statement, STATE 927), (sym_function_definition, STATE 927),
    (sym_global_statement, STATE 11814), (sym_nonlocal_statement, STATE 11814),
    (sym_exec_statement, STATE 11814), (sym_type_alias_statement, STATE 11814),
    (sym_parameterized_alias_statement, STATE 11814), (sym_class_definition, STATE 927),
    (sym_trait_definition, STATE 927), (sym_decorated_definition, STATE 927),
    (sym_decorator, STATE 3670), (sym_block, STATE 5617), (sym_pattern, STATE 8086),
    (sym_tuple_pattern, STATE 8101), (sym_list_pattern, STATE 8101),
    (sym_list_splat_pattern, STATE 6819), (sym_as_pattern, STATE 7969),
    (sym_expression, STATE 9883), (sym_primary_expression, STATE 7326),
    (sym_comptime_expression, STATE 7017), (sym_transfer_expression, STATE 7017),
    (sym_not_operator, STATE 7969), (sym_boolean_operator, STATE 7969),
    (sym_binary_operator, STATE 7017), (sym_unary_operator, STATE 7017),
    (sym_comparison_operator, STATE 7969), (sym_lambda, STATE 7969),
    (sym_assignment, STATE 12425), (sym_augmented_assignment, STATE 12425),
    (sym_pattern_list, STATE 8578), (sym_yield, STATE 12425), (sym_attribute, STATE 6836),
    (sym_subscript, STATE 6838), (sym_call, STATE 6845), (sym_mlir_type, STATE 7017),
    (sym_list, STATE 7017), (sym_set, STATE 7017), (sym_tuple, STATE 7017),
    (sym_dictionary, STATE 7017), (sym_struct_literal, STATE 7017),
    (sym_list_comprehension, STATE 7017), (sym_dictionary_comprehension, STATE 7017),
    (sym_set_comprehension, STATE 7017), (sym_generator_expression, STATE 7017),
    (sym_parenthesized_expression, STATE 7017), (sym_conditional_expression, STATE 7969),
    (sym_concatenated_string, STATE 7017), (sym_string, STATE 6751), (sym_await, STATE 7017),
    (aux_sym_module_repeat1, STATE 927), (aux_sym_decorated_definition_repeat1, STATE 3670),
    (sym_identifier, ACTIONS 9), (anon_sym_import, ACTIONS 11), (anon_sym_from, ACTIONS 13),
    (anon_sym_LPAREN, ACTIONS 15), (anon_sym_STAR, ACTIONS 17), (anon_sym_print, ACTIONS 19),
    (anon_sym_comptime, ACTIONS 99), (anon_sym_assert, ACTIONS 23),
    (anon_sym___comptime_assert, ACTIONS 25), (anon_sym_return, ACTIONS 27),
    (anon_sym_del, ACTIONS 29), (anon_sym_raise, ACTIONS 31), (anon_sym_pass, ACTIONS 33),
    (anon_sym_break, ACTIONS 35), (anon_sym_continue, ACTIONS 37),
    (anon_sym___extension, ACTIONS 101), (anon_sym___mlir_region, ACTIONS 103),
    (anon_sym_if, ACTIONS 105), (anon_sym_match, ACTIONS 107), (anon_sym_async, ACTIONS 109),
    (anon_sym_for, ACTIONS 111), (anon_sym_while, ACTIONS 113), (anon_sym_try, ACTIONS 115),
    (anon_sym_with, ACTIONS 117), (anon_sym_def, ACTIONS 119), (anon_sym_fn, ACTIONS 119),
    (anon_sym_LBRACK, ACTIONS 59), (anon_sym_LBRACE, ACTIONS 61), (anon_sym_global, ACTIONS 63),
    (anon_sym_nonlocal, ACTIONS 65), (anon_sym_exec, ACTIONS 67), (anon_sym_type, ACTIONS 69),
    (anon_sym_class, ACTIONS 121), (anon_sym_struct, ACTIONS 121), (anon_sym_mut, ACTIONS 73),
    (anon_sym_out, ACTIONS 73), (anon_sym_trait, ACTIONS 123), (anon_sym_AT, ACTIONS 77),
    (anon_sym_DASH, ACTIONS 79), (anon_sym_PLUS, ACTIONS 79), (anon_sym_ref, ACTIONS 81),
    (anon_sym_var, ACTIONS 81), (anon_sym_not, ACTIONS 83), (anon_sym_TILDE, ACTIONS 79),
    (anon_sym_lambda, ACTIONS 85), (anon_sym_yield, ACTIONS 87), (sym_ellipsis, ACTIONS 89),
    (anon_sym___mlir_type, ACTIONS 91), (sym_integer, ACTIONS 93), (sym_float, ACTIONS 89),
    (anon_sym_await, ACTIONS 95), (sym_true, ACTIONS 93), (sym_false, ACTIONS 93),
    (sym_none, ACTIONS 93), (sym_comment, ACTIONS 3), (sym_line_continuation, ACTIONS 3),
    (sym__dedent, ACTIONS 125), (sym_string_start, ACTIONS 97)]"

definition parse_table_586 :: "(nat \<times> nat) list" where "parse_table_586 = [
    (sym__statement, STATE 927), (sym__simple_statements, STATE 927),
    (sym_import_statement, STATE 11814), (sym_future_import_statement, STATE 11814),
    (sym_import_from_statement, STATE 11814), (sym_print_statement, STATE 11814),
    (sym_assert_statement, STATE 11814), (sym_comptime_assert_statement, STATE 11814),
    (sym_expression_statement, STATE 11814), (sym_tuple_expression, STATE 12425),
    (sym_named_expression, STATE 7969), (sym__named_expression_lhs, STATE 12752),
    (sym_return_statement, STATE 11814), (sym_delete_statement, STATE 11814),
    (sym_raise_statement, STATE 11814), (sym_pass_statement, STATE 11814),
    (sym_break_statement, STATE 11814), (sym_continue_statement, STATE 11814),
    (sym_extension_definition, STATE 927), (sym_mlir_region, STATE 927),
    (sym_comptime_statement, STATE 927), (sym_if_statement, STATE 927),
    (sym_match_statement, STATE 927), (sym_for_statement, STATE 927),
    (sym_while_statement, STATE 927), (sym_try_statement, STATE 927),
    (sym_with_statement, STATE 927), (sym_function_definition, STATE 927),
    (sym_global_statement, STATE 11814), (sym_nonlocal_statement, STATE 11814),
    (sym_exec_statement, STATE 11814), (sym_type_alias_statement, STATE 11814),
    (sym_parameterized_alias_statement, STATE 11814), (sym_class_definition, STATE 927),
    (sym_trait_definition, STATE 927), (sym_decorated_definition, STATE 927),
    (sym_decorator, STATE 3670), (sym_block, STATE 5621), (sym_pattern, STATE 8086),
    (sym_tuple_pattern, STATE 8101), (sym_list_pattern, STATE 8101),
    (sym_list_splat_pattern, STATE 6819), (sym_as_pattern, STATE 7969),
    (sym_expression, STATE 9883), (sym_primary_expression, STATE 7326),
    (sym_comptime_expression, STATE 7017), (sym_transfer_expression, STATE 7017),
    (sym_not_operator, STATE 7969), (sym_boolean_operator, STATE 7969),
    (sym_binary_operator, STATE 7017), (sym_unary_operator, STATE 7017),
    (sym_comparison_operator, STATE 7969), (sym_lambda, STATE 7969),
    (sym_assignment, STATE 12425), (sym_augmented_assignment, STATE 12425),
    (sym_pattern_list, STATE 8578), (sym_yield, STATE 12425), (sym_attribute, STATE 6836),
    (sym_subscript, STATE 6838), (sym_call, STATE 6845), (sym_mlir_type, STATE 7017),
    (sym_list, STATE 7017), (sym_set, STATE 7017), (sym_tuple, STATE 7017),
    (sym_dictionary, STATE 7017), (sym_struct_literal, STATE 7017),
    (sym_list_comprehension, STATE 7017), (sym_dictionary_comprehension, STATE 7017),
    (sym_set_comprehension, STATE 7017), (sym_generator_expression, STATE 7017),
    (sym_parenthesized_expression, STATE 7017), (sym_conditional_expression, STATE 7969),
    (sym_concatenated_string, STATE 7017), (sym_string, STATE 6751), (sym_await, STATE 7017),
    (aux_sym_module_repeat1, STATE 927), (aux_sym_decorated_definition_repeat1, STATE 3670),
    (sym_identifier, ACTIONS 9), (anon_sym_import, ACTIONS 11), (anon_sym_from, ACTIONS 13),
    (anon_sym_LPAREN, ACTIONS 15), (anon_sym_STAR, ACTIONS 17), (anon_sym_print, ACTIONS 19),
    (anon_sym_comptime, ACTIONS 99), (anon_sym_assert, ACTIONS 23),
    (anon_sym___comptime_assert, ACTIONS 25), (anon_sym_return, ACTIONS 27),
    (anon_sym_del, ACTIONS 29), (anon_sym_raise, ACTIONS 31), (anon_sym_pass, ACTIONS 33),
    (anon_sym_break, ACTIONS 35), (anon_sym_continue, ACTIONS 37),
    (anon_sym___extension, ACTIONS 101), (anon_sym___mlir_region, ACTIONS 103),
    (anon_sym_if, ACTIONS 105), (anon_sym_match, ACTIONS 107), (anon_sym_async, ACTIONS 109),
    (anon_sym_for, ACTIONS 111), (anon_sym_while, ACTIONS 113), (anon_sym_try, ACTIONS 115),
    (anon_sym_with, ACTIONS 117), (anon_sym_def, ACTIONS 119), (anon_sym_fn, ACTIONS 119),
    (anon_sym_LBRACK, ACTIONS 59), (anon_sym_LBRACE, ACTIONS 61), (anon_sym_global, ACTIONS 63),
    (anon_sym_nonlocal, ACTIONS 65), (anon_sym_exec, ACTIONS 67), (anon_sym_type, ACTIONS 69),
    (anon_sym_class, ACTIONS 121), (anon_sym_struct, ACTIONS 121), (anon_sym_mut, ACTIONS 73),
    (anon_sym_out, ACTIONS 73), (anon_sym_trait, ACTIONS 123), (anon_sym_AT, ACTIONS 77),
    (anon_sym_DASH, ACTIONS 79), (anon_sym_PLUS, ACTIONS 79), (anon_sym_ref, ACTIONS 81),
    (anon_sym_var, ACTIONS 81), (anon_sym_not, ACTIONS 83), (anon_sym_TILDE, ACTIONS 79),
    (anon_sym_lambda, ACTIONS 85), (anon_sym_yield, ACTIONS 87), (sym_ellipsis, ACTIONS 89),
    (anon_sym___mlir_type, ACTIONS 91), (sym_integer, ACTIONS 93), (sym_float, ACTIONS 89),
    (anon_sym_await, ACTIONS 95), (sym_true, ACTIONS 93), (sym_false, ACTIONS 93),
    (sym_none, ACTIONS 93), (sym_comment, ACTIONS 3), (sym_line_continuation, ACTIONS 3),
    (sym__dedent, ACTIONS 125), (sym_string_start, ACTIONS 97)]"

definition parse_table_587 :: "(nat \<times> nat) list" where "parse_table_587 = [
    (sym__statement, STATE 927), (sym__simple_statements, STATE 927),
    (sym_import_statement, STATE 11814), (sym_future_import_statement, STATE 11814),
    (sym_import_from_statement, STATE 11814), (sym_print_statement, STATE 11814),
    (sym_assert_statement, STATE 11814), (sym_comptime_assert_statement, STATE 11814),
    (sym_expression_statement, STATE 11814), (sym_tuple_expression, STATE 12425),
    (sym_named_expression, STATE 7969), (sym__named_expression_lhs, STATE 12752),
    (sym_return_statement, STATE 11814), (sym_delete_statement, STATE 11814),
    (sym_raise_statement, STATE 11814), (sym_pass_statement, STATE 11814),
    (sym_break_statement, STATE 11814), (sym_continue_statement, STATE 11814),
    (sym_extension_definition, STATE 927), (sym_mlir_region, STATE 927),
    (sym_comptime_statement, STATE 927), (sym_if_statement, STATE 927),
    (sym_match_statement, STATE 927), (sym_for_statement, STATE 927),
    (sym_while_statement, STATE 927), (sym_try_statement, STATE 927),
    (sym_with_statement, STATE 927), (sym_function_definition, STATE 927),
    (sym_global_statement, STATE 11814), (sym_nonlocal_statement, STATE 11814),
    (sym_exec_statement, STATE 11814), (sym_type_alias_statement, STATE 11814),
    (sym_parameterized_alias_statement, STATE 11814), (sym_class_definition, STATE 927),
    (sym_trait_definition, STATE 927), (sym_decorated_definition, STATE 927),
    (sym_decorator, STATE 3670), (sym_block, STATE 5628), (sym_pattern, STATE 8086),
    (sym_tuple_pattern, STATE 8101), (sym_list_pattern, STATE 8101),
    (sym_list_splat_pattern, STATE 6819), (sym_as_pattern, STATE 7969),
    (sym_expression, STATE 9883), (sym_primary_expression, STATE 7326),
    (sym_comptime_expression, STATE 7017), (sym_transfer_expression, STATE 7017),
    (sym_not_operator, STATE 7969), (sym_boolean_operator, STATE 7969),
    (sym_binary_operator, STATE 7017), (sym_unary_operator, STATE 7017),
    (sym_comparison_operator, STATE 7969), (sym_lambda, STATE 7969),
    (sym_assignment, STATE 12425), (sym_augmented_assignment, STATE 12425),
    (sym_pattern_list, STATE 8578), (sym_yield, STATE 12425), (sym_attribute, STATE 6836),
    (sym_subscript, STATE 6838), (sym_call, STATE 6845), (sym_mlir_type, STATE 7017),
    (sym_list, STATE 7017), (sym_set, STATE 7017), (sym_tuple, STATE 7017),
    (sym_dictionary, STATE 7017), (sym_struct_literal, STATE 7017),
    (sym_list_comprehension, STATE 7017), (sym_dictionary_comprehension, STATE 7017),
    (sym_set_comprehension, STATE 7017), (sym_generator_expression, STATE 7017),
    (sym_parenthesized_expression, STATE 7017), (sym_conditional_expression, STATE 7969),
    (sym_concatenated_string, STATE 7017), (sym_string, STATE 6751), (sym_await, STATE 7017),
    (aux_sym_module_repeat1, STATE 927), (aux_sym_decorated_definition_repeat1, STATE 3670),
    (sym_identifier, ACTIONS 9), (anon_sym_import, ACTIONS 11), (anon_sym_from, ACTIONS 13),
    (anon_sym_LPAREN, ACTIONS 15), (anon_sym_STAR, ACTIONS 17), (anon_sym_print, ACTIONS 19),
    (anon_sym_comptime, ACTIONS 99), (anon_sym_assert, ACTIONS 23),
    (anon_sym___comptime_assert, ACTIONS 25), (anon_sym_return, ACTIONS 27),
    (anon_sym_del, ACTIONS 29), (anon_sym_raise, ACTIONS 31), (anon_sym_pass, ACTIONS 33),
    (anon_sym_break, ACTIONS 35), (anon_sym_continue, ACTIONS 37),
    (anon_sym___extension, ACTIONS 101), (anon_sym___mlir_region, ACTIONS 103),
    (anon_sym_if, ACTIONS 105), (anon_sym_match, ACTIONS 107), (anon_sym_async, ACTIONS 109),
    (anon_sym_for, ACTIONS 111), (anon_sym_while, ACTIONS 113), (anon_sym_try, ACTIONS 115),
    (anon_sym_with, ACTIONS 117), (anon_sym_def, ACTIONS 119), (anon_sym_fn, ACTIONS 119),
    (anon_sym_LBRACK, ACTIONS 59), (anon_sym_LBRACE, ACTIONS 61), (anon_sym_global, ACTIONS 63),
    (anon_sym_nonlocal, ACTIONS 65), (anon_sym_exec, ACTIONS 67), (anon_sym_type, ACTIONS 69),
    (anon_sym_class, ACTIONS 121), (anon_sym_struct, ACTIONS 121), (anon_sym_mut, ACTIONS 73),
    (anon_sym_out, ACTIONS 73), (anon_sym_trait, ACTIONS 123), (anon_sym_AT, ACTIONS 77),
    (anon_sym_DASH, ACTIONS 79), (anon_sym_PLUS, ACTIONS 79), (anon_sym_ref, ACTIONS 81),
    (anon_sym_var, ACTIONS 81), (anon_sym_not, ACTIONS 83), (anon_sym_TILDE, ACTIONS 79),
    (anon_sym_lambda, ACTIONS 85), (anon_sym_yield, ACTIONS 87), (sym_ellipsis, ACTIONS 89),
    (anon_sym___mlir_type, ACTIONS 91), (sym_integer, ACTIONS 93), (sym_float, ACTIONS 89),
    (anon_sym_await, ACTIONS 95), (sym_true, ACTIONS 93), (sym_false, ACTIONS 93),
    (sym_none, ACTIONS 93), (sym_comment, ACTIONS 3), (sym_line_continuation, ACTIONS 3),
    (sym__dedent, ACTIONS 125), (sym_string_start, ACTIONS 97)]"

definition parse_table_588 :: "(nat \<times> nat) list" where "parse_table_588 = [
    (sym__statement, STATE 927), (sym__simple_statements, STATE 927),
    (sym_import_statement, STATE 11814), (sym_future_import_statement, STATE 11814),
    (sym_import_from_statement, STATE 11814), (sym_print_statement, STATE 11814),
    (sym_assert_statement, STATE 11814), (sym_comptime_assert_statement, STATE 11814),
    (sym_expression_statement, STATE 11814), (sym_tuple_expression, STATE 12425),
    (sym_named_expression, STATE 7969), (sym__named_expression_lhs, STATE 12752),
    (sym_return_statement, STATE 11814), (sym_delete_statement, STATE 11814),
    (sym_raise_statement, STATE 11814), (sym_pass_statement, STATE 11814),
    (sym_break_statement, STATE 11814), (sym_continue_statement, STATE 11814),
    (sym_extension_definition, STATE 927), (sym_mlir_region, STATE 927),
    (sym_comptime_statement, STATE 927), (sym_if_statement, STATE 927),
    (sym_match_statement, STATE 927), (sym_for_statement, STATE 927),
    (sym_while_statement, STATE 927), (sym_try_statement, STATE 927),
    (sym_with_statement, STATE 927), (sym_function_definition, STATE 927),
    (sym_global_statement, STATE 11814), (sym_nonlocal_statement, STATE 11814),
    (sym_exec_statement, STATE 11814), (sym_type_alias_statement, STATE 11814),
    (sym_parameterized_alias_statement, STATE 11814), (sym_class_definition, STATE 927),
    (sym_trait_definition, STATE 927), (sym_decorated_definition, STATE 927),
    (sym_decorator, STATE 3670), (sym_block, STATE 5629), (sym_pattern, STATE 8086),
    (sym_tuple_pattern, STATE 8101), (sym_list_pattern, STATE 8101),
    (sym_list_splat_pattern, STATE 6819), (sym_as_pattern, STATE 7969),
    (sym_expression, STATE 9883), (sym_primary_expression, STATE 7326),
    (sym_comptime_expression, STATE 7017), (sym_transfer_expression, STATE 7017),
    (sym_not_operator, STATE 7969), (sym_boolean_operator, STATE 7969),
    (sym_binary_operator, STATE 7017), (sym_unary_operator, STATE 7017),
    (sym_comparison_operator, STATE 7969), (sym_lambda, STATE 7969),
    (sym_assignment, STATE 12425), (sym_augmented_assignment, STATE 12425),
    (sym_pattern_list, STATE 8578), (sym_yield, STATE 12425), (sym_attribute, STATE 6836),
    (sym_subscript, STATE 6838), (sym_call, STATE 6845), (sym_mlir_type, STATE 7017),
    (sym_list, STATE 7017), (sym_set, STATE 7017), (sym_tuple, STATE 7017),
    (sym_dictionary, STATE 7017), (sym_struct_literal, STATE 7017),
    (sym_list_comprehension, STATE 7017), (sym_dictionary_comprehension, STATE 7017),
    (sym_set_comprehension, STATE 7017), (sym_generator_expression, STATE 7017),
    (sym_parenthesized_expression, STATE 7017), (sym_conditional_expression, STATE 7969),
    (sym_concatenated_string, STATE 7017), (sym_string, STATE 6751), (sym_await, STATE 7017),
    (aux_sym_module_repeat1, STATE 927), (aux_sym_decorated_definition_repeat1, STATE 3670),
    (sym_identifier, ACTIONS 9), (anon_sym_import, ACTIONS 11), (anon_sym_from, ACTIONS 13),
    (anon_sym_LPAREN, ACTIONS 15), (anon_sym_STAR, ACTIONS 17), (anon_sym_print, ACTIONS 19),
    (anon_sym_comptime, ACTIONS 99), (anon_sym_assert, ACTIONS 23),
    (anon_sym___comptime_assert, ACTIONS 25), (anon_sym_return, ACTIONS 27),
    (anon_sym_del, ACTIONS 29), (anon_sym_raise, ACTIONS 31), (anon_sym_pass, ACTIONS 33),
    (anon_sym_break, ACTIONS 35), (anon_sym_continue, ACTIONS 37),
    (anon_sym___extension, ACTIONS 101), (anon_sym___mlir_region, ACTIONS 103),
    (anon_sym_if, ACTIONS 105), (anon_sym_match, ACTIONS 107), (anon_sym_async, ACTIONS 109),
    (anon_sym_for, ACTIONS 111), (anon_sym_while, ACTIONS 113), (anon_sym_try, ACTIONS 115),
    (anon_sym_with, ACTIONS 117), (anon_sym_def, ACTIONS 119), (anon_sym_fn, ACTIONS 119),
    (anon_sym_LBRACK, ACTIONS 59), (anon_sym_LBRACE, ACTIONS 61), (anon_sym_global, ACTIONS 63),
    (anon_sym_nonlocal, ACTIONS 65), (anon_sym_exec, ACTIONS 67), (anon_sym_type, ACTIONS 69),
    (anon_sym_class, ACTIONS 121), (anon_sym_struct, ACTIONS 121), (anon_sym_mut, ACTIONS 73),
    (anon_sym_out, ACTIONS 73), (anon_sym_trait, ACTIONS 123), (anon_sym_AT, ACTIONS 77),
    (anon_sym_DASH, ACTIONS 79), (anon_sym_PLUS, ACTIONS 79), (anon_sym_ref, ACTIONS 81),
    (anon_sym_var, ACTIONS 81), (anon_sym_not, ACTIONS 83), (anon_sym_TILDE, ACTIONS 79),
    (anon_sym_lambda, ACTIONS 85), (anon_sym_yield, ACTIONS 87), (sym_ellipsis, ACTIONS 89),
    (anon_sym___mlir_type, ACTIONS 91), (sym_integer, ACTIONS 93), (sym_float, ACTIONS 89),
    (anon_sym_await, ACTIONS 95), (sym_true, ACTIONS 93), (sym_false, ACTIONS 93),
    (sym_none, ACTIONS 93), (sym_comment, ACTIONS 3), (sym_line_continuation, ACTIONS 3),
    (sym__dedent, ACTIONS 125), (sym_string_start, ACTIONS 97)]"

definition parse_table_589 :: "(nat \<times> nat) list" where "parse_table_589 = [
    (sym__statement, STATE 927), (sym__simple_statements, STATE 927),
    (sym_import_statement, STATE 11814), (sym_future_import_statement, STATE 11814),
    (sym_import_from_statement, STATE 11814), (sym_print_statement, STATE 11814),
    (sym_assert_statement, STATE 11814), (sym_comptime_assert_statement, STATE 11814),
    (sym_expression_statement, STATE 11814), (sym_tuple_expression, STATE 12425),
    (sym_named_expression, STATE 7969), (sym__named_expression_lhs, STATE 12752),
    (sym_return_statement, STATE 11814), (sym_delete_statement, STATE 11814),
    (sym_raise_statement, STATE 11814), (sym_pass_statement, STATE 11814),
    (sym_break_statement, STATE 11814), (sym_continue_statement, STATE 11814),
    (sym_extension_definition, STATE 927), (sym_mlir_region, STATE 927),
    (sym_comptime_statement, STATE 927), (sym_if_statement, STATE 927),
    (sym_match_statement, STATE 927), (sym_for_statement, STATE 927),
    (sym_while_statement, STATE 927), (sym_try_statement, STATE 927),
    (sym_with_statement, STATE 927), (sym_function_definition, STATE 927),
    (sym_global_statement, STATE 11814), (sym_nonlocal_statement, STATE 11814),
    (sym_exec_statement, STATE 11814), (sym_type_alias_statement, STATE 11814),
    (sym_parameterized_alias_statement, STATE 11814), (sym_class_definition, STATE 927),
    (sym_trait_definition, STATE 927), (sym_decorated_definition, STATE 927),
    (sym_decorator, STATE 3670), (sym_block, STATE 5630), (sym_pattern, STATE 8086),
    (sym_tuple_pattern, STATE 8101), (sym_list_pattern, STATE 8101),
    (sym_list_splat_pattern, STATE 6819), (sym_as_pattern, STATE 7969),
    (sym_expression, STATE 9883), (sym_primary_expression, STATE 7326),
    (sym_comptime_expression, STATE 7017), (sym_transfer_expression, STATE 7017),
    (sym_not_operator, STATE 7969), (sym_boolean_operator, STATE 7969),
    (sym_binary_operator, STATE 7017), (sym_unary_operator, STATE 7017),
    (sym_comparison_operator, STATE 7969), (sym_lambda, STATE 7969),
    (sym_assignment, STATE 12425), (sym_augmented_assignment, STATE 12425),
    (sym_pattern_list, STATE 8578), (sym_yield, STATE 12425), (sym_attribute, STATE 6836),
    (sym_subscript, STATE 6838), (sym_call, STATE 6845), (sym_mlir_type, STATE 7017),
    (sym_list, STATE 7017), (sym_set, STATE 7017), (sym_tuple, STATE 7017),
    (sym_dictionary, STATE 7017), (sym_struct_literal, STATE 7017),
    (sym_list_comprehension, STATE 7017), (sym_dictionary_comprehension, STATE 7017),
    (sym_set_comprehension, STATE 7017), (sym_generator_expression, STATE 7017),
    (sym_parenthesized_expression, STATE 7017), (sym_conditional_expression, STATE 7969),
    (sym_concatenated_string, STATE 7017), (sym_string, STATE 6751), (sym_await, STATE 7017),
    (aux_sym_module_repeat1, STATE 927), (aux_sym_decorated_definition_repeat1, STATE 3670),
    (sym_identifier, ACTIONS 9), (anon_sym_import, ACTIONS 11), (anon_sym_from, ACTIONS 13),
    (anon_sym_LPAREN, ACTIONS 15), (anon_sym_STAR, ACTIONS 17), (anon_sym_print, ACTIONS 19),
    (anon_sym_comptime, ACTIONS 99), (anon_sym_assert, ACTIONS 23),
    (anon_sym___comptime_assert, ACTIONS 25), (anon_sym_return, ACTIONS 27),
    (anon_sym_del, ACTIONS 29), (anon_sym_raise, ACTIONS 31), (anon_sym_pass, ACTIONS 33),
    (anon_sym_break, ACTIONS 35), (anon_sym_continue, ACTIONS 37),
    (anon_sym___extension, ACTIONS 101), (anon_sym___mlir_region, ACTIONS 103),
    (anon_sym_if, ACTIONS 105), (anon_sym_match, ACTIONS 107), (anon_sym_async, ACTIONS 109),
    (anon_sym_for, ACTIONS 111), (anon_sym_while, ACTIONS 113), (anon_sym_try, ACTIONS 115),
    (anon_sym_with, ACTIONS 117), (anon_sym_def, ACTIONS 119), (anon_sym_fn, ACTIONS 119),
    (anon_sym_LBRACK, ACTIONS 59), (anon_sym_LBRACE, ACTIONS 61), (anon_sym_global, ACTIONS 63),
    (anon_sym_nonlocal, ACTIONS 65), (anon_sym_exec, ACTIONS 67), (anon_sym_type, ACTIONS 69),
    (anon_sym_class, ACTIONS 121), (anon_sym_struct, ACTIONS 121), (anon_sym_mut, ACTIONS 73),
    (anon_sym_out, ACTIONS 73), (anon_sym_trait, ACTIONS 123), (anon_sym_AT, ACTIONS 77),
    (anon_sym_DASH, ACTIONS 79), (anon_sym_PLUS, ACTIONS 79), (anon_sym_ref, ACTIONS 81),
    (anon_sym_var, ACTIONS 81), (anon_sym_not, ACTIONS 83), (anon_sym_TILDE, ACTIONS 79),
    (anon_sym_lambda, ACTIONS 85), (anon_sym_yield, ACTIONS 87), (sym_ellipsis, ACTIONS 89),
    (anon_sym___mlir_type, ACTIONS 91), (sym_integer, ACTIONS 93), (sym_float, ACTIONS 89),
    (anon_sym_await, ACTIONS 95), (sym_true, ACTIONS 93), (sym_false, ACTIONS 93),
    (sym_none, ACTIONS 93), (sym_comment, ACTIONS 3), (sym_line_continuation, ACTIONS 3),
    (sym__dedent, ACTIONS 125), (sym_string_start, ACTIONS 97)]"

definition parse_table_590 :: "(nat \<times> nat) list" where "parse_table_590 = [
    (sym__statement, STATE 927), (sym__simple_statements, STATE 927),
    (sym_import_statement, STATE 11814), (sym_future_import_statement, STATE 11814),
    (sym_import_from_statement, STATE 11814), (sym_print_statement, STATE 11814),
    (sym_assert_statement, STATE 11814), (sym_comptime_assert_statement, STATE 11814),
    (sym_expression_statement, STATE 11814), (sym_tuple_expression, STATE 12425),
    (sym_named_expression, STATE 7969), (sym__named_expression_lhs, STATE 12752),
    (sym_return_statement, STATE 11814), (sym_delete_statement, STATE 11814),
    (sym_raise_statement, STATE 11814), (sym_pass_statement, STATE 11814),
    (sym_break_statement, STATE 11814), (sym_continue_statement, STATE 11814),
    (sym_extension_definition, STATE 927), (sym_mlir_region, STATE 927),
    (sym_comptime_statement, STATE 927), (sym_if_statement, STATE 927),
    (sym_match_statement, STATE 927), (sym_for_statement, STATE 927),
    (sym_while_statement, STATE 927), (sym_try_statement, STATE 927),
    (sym_with_statement, STATE 927), (sym_function_definition, STATE 927),
    (sym_global_statement, STATE 11814), (sym_nonlocal_statement, STATE 11814),
    (sym_exec_statement, STATE 11814), (sym_type_alias_statement, STATE 11814),
    (sym_parameterized_alias_statement, STATE 11814), (sym_class_definition, STATE 927),
    (sym_trait_definition, STATE 927), (sym_decorated_definition, STATE 927),
    (sym_decorator, STATE 3670), (sym_block, STATE 5633), (sym_pattern, STATE 8086),
    (sym_tuple_pattern, STATE 8101), (sym_list_pattern, STATE 8101),
    (sym_list_splat_pattern, STATE 6819), (sym_as_pattern, STATE 7969),
    (sym_expression, STATE 9883), (sym_primary_expression, STATE 7326),
    (sym_comptime_expression, STATE 7017), (sym_transfer_expression, STATE 7017),
    (sym_not_operator, STATE 7969), (sym_boolean_operator, STATE 7969),
    (sym_binary_operator, STATE 7017), (sym_unary_operator, STATE 7017),
    (sym_comparison_operator, STATE 7969), (sym_lambda, STATE 7969),
    (sym_assignment, STATE 12425), (sym_augmented_assignment, STATE 12425),
    (sym_pattern_list, STATE 8578), (sym_yield, STATE 12425), (sym_attribute, STATE 6836),
    (sym_subscript, STATE 6838), (sym_call, STATE 6845), (sym_mlir_type, STATE 7017),
    (sym_list, STATE 7017), (sym_set, STATE 7017), (sym_tuple, STATE 7017),
    (sym_dictionary, STATE 7017), (sym_struct_literal, STATE 7017),
    (sym_list_comprehension, STATE 7017), (sym_dictionary_comprehension, STATE 7017),
    (sym_set_comprehension, STATE 7017), (sym_generator_expression, STATE 7017),
    (sym_parenthesized_expression, STATE 7017), (sym_conditional_expression, STATE 7969),
    (sym_concatenated_string, STATE 7017), (sym_string, STATE 6751), (sym_await, STATE 7017),
    (aux_sym_module_repeat1, STATE 927), (aux_sym_decorated_definition_repeat1, STATE 3670),
    (sym_identifier, ACTIONS 9), (anon_sym_import, ACTIONS 11), (anon_sym_from, ACTIONS 13),
    (anon_sym_LPAREN, ACTIONS 15), (anon_sym_STAR, ACTIONS 17), (anon_sym_print, ACTIONS 19),
    (anon_sym_comptime, ACTIONS 99), (anon_sym_assert, ACTIONS 23),
    (anon_sym___comptime_assert, ACTIONS 25), (anon_sym_return, ACTIONS 27),
    (anon_sym_del, ACTIONS 29), (anon_sym_raise, ACTIONS 31), (anon_sym_pass, ACTIONS 33),
    (anon_sym_break, ACTIONS 35), (anon_sym_continue, ACTIONS 37),
    (anon_sym___extension, ACTIONS 101), (anon_sym___mlir_region, ACTIONS 103),
    (anon_sym_if, ACTIONS 105), (anon_sym_match, ACTIONS 107), (anon_sym_async, ACTIONS 109),
    (anon_sym_for, ACTIONS 111), (anon_sym_while, ACTIONS 113), (anon_sym_try, ACTIONS 115),
    (anon_sym_with, ACTIONS 117), (anon_sym_def, ACTIONS 119), (anon_sym_fn, ACTIONS 119),
    (anon_sym_LBRACK, ACTIONS 59), (anon_sym_LBRACE, ACTIONS 61), (anon_sym_global, ACTIONS 63),
    (anon_sym_nonlocal, ACTIONS 65), (anon_sym_exec, ACTIONS 67), (anon_sym_type, ACTIONS 69),
    (anon_sym_class, ACTIONS 121), (anon_sym_struct, ACTIONS 121), (anon_sym_mut, ACTIONS 73),
    (anon_sym_out, ACTIONS 73), (anon_sym_trait, ACTIONS 123), (anon_sym_AT, ACTIONS 77),
    (anon_sym_DASH, ACTIONS 79), (anon_sym_PLUS, ACTIONS 79), (anon_sym_ref, ACTIONS 81),
    (anon_sym_var, ACTIONS 81), (anon_sym_not, ACTIONS 83), (anon_sym_TILDE, ACTIONS 79),
    (anon_sym_lambda, ACTIONS 85), (anon_sym_yield, ACTIONS 87), (sym_ellipsis, ACTIONS 89),
    (anon_sym___mlir_type, ACTIONS 91), (sym_integer, ACTIONS 93), (sym_float, ACTIONS 89),
    (anon_sym_await, ACTIONS 95), (sym_true, ACTIONS 93), (sym_false, ACTIONS 93),
    (sym_none, ACTIONS 93), (sym_comment, ACTIONS 3), (sym_line_continuation, ACTIONS 3),
    (sym__dedent, ACTIONS 125), (sym_string_start, ACTIONS 97)]"

definition parse_table_591 :: "(nat \<times> nat) list" where "parse_table_591 = [
    (sym__statement, STATE 927), (sym__simple_statements, STATE 927),
    (sym_import_statement, STATE 11814), (sym_future_import_statement, STATE 11814),
    (sym_import_from_statement, STATE 11814), (sym_print_statement, STATE 11814),
    (sym_assert_statement, STATE 11814), (sym_comptime_assert_statement, STATE 11814),
    (sym_expression_statement, STATE 11814), (sym_tuple_expression, STATE 12425),
    (sym_named_expression, STATE 7969), (sym__named_expression_lhs, STATE 12752),
    (sym_return_statement, STATE 11814), (sym_delete_statement, STATE 11814),
    (sym_raise_statement, STATE 11814), (sym_pass_statement, STATE 11814),
    (sym_break_statement, STATE 11814), (sym_continue_statement, STATE 11814),
    (sym_extension_definition, STATE 927), (sym_mlir_region, STATE 927),
    (sym_comptime_statement, STATE 927), (sym_if_statement, STATE 927),
    (sym_match_statement, STATE 927), (sym_for_statement, STATE 927),
    (sym_while_statement, STATE 927), (sym_try_statement, STATE 927),
    (sym_with_statement, STATE 927), (sym_function_definition, STATE 927),
    (sym_global_statement, STATE 11814), (sym_nonlocal_statement, STATE 11814),
    (sym_exec_statement, STATE 11814), (sym_type_alias_statement, STATE 11814),
    (sym_parameterized_alias_statement, STATE 11814), (sym_class_definition, STATE 927),
    (sym_trait_definition, STATE 927), (sym_decorated_definition, STATE 927),
    (sym_decorator, STATE 3670), (sym_block, STATE 5634), (sym_pattern, STATE 8086),
    (sym_tuple_pattern, STATE 8101), (sym_list_pattern, STATE 8101),
    (sym_list_splat_pattern, STATE 6819), (sym_as_pattern, STATE 7969),
    (sym_expression, STATE 9883), (sym_primary_expression, STATE 7326),
    (sym_comptime_expression, STATE 7017), (sym_transfer_expression, STATE 7017),
    (sym_not_operator, STATE 7969), (sym_boolean_operator, STATE 7969),
    (sym_binary_operator, STATE 7017), (sym_unary_operator, STATE 7017),
    (sym_comparison_operator, STATE 7969), (sym_lambda, STATE 7969),
    (sym_assignment, STATE 12425), (sym_augmented_assignment, STATE 12425),
    (sym_pattern_list, STATE 8578), (sym_yield, STATE 12425), (sym_attribute, STATE 6836),
    (sym_subscript, STATE 6838), (sym_call, STATE 6845), (sym_mlir_type, STATE 7017),
    (sym_list, STATE 7017), (sym_set, STATE 7017), (sym_tuple, STATE 7017),
    (sym_dictionary, STATE 7017), (sym_struct_literal, STATE 7017),
    (sym_list_comprehension, STATE 7017), (sym_dictionary_comprehension, STATE 7017),
    (sym_set_comprehension, STATE 7017), (sym_generator_expression, STATE 7017),
    (sym_parenthesized_expression, STATE 7017), (sym_conditional_expression, STATE 7969),
    (sym_concatenated_string, STATE 7017), (sym_string, STATE 6751), (sym_await, STATE 7017),
    (aux_sym_module_repeat1, STATE 927), (aux_sym_decorated_definition_repeat1, STATE 3670),
    (sym_identifier, ACTIONS 9), (anon_sym_import, ACTIONS 11), (anon_sym_from, ACTIONS 13),
    (anon_sym_LPAREN, ACTIONS 15), (anon_sym_STAR, ACTIONS 17), (anon_sym_print, ACTIONS 19),
    (anon_sym_comptime, ACTIONS 99), (anon_sym_assert, ACTIONS 23),
    (anon_sym___comptime_assert, ACTIONS 25), (anon_sym_return, ACTIONS 27),
    (anon_sym_del, ACTIONS 29), (anon_sym_raise, ACTIONS 31), (anon_sym_pass, ACTIONS 33),
    (anon_sym_break, ACTIONS 35), (anon_sym_continue, ACTIONS 37),
    (anon_sym___extension, ACTIONS 101), (anon_sym___mlir_region, ACTIONS 103),
    (anon_sym_if, ACTIONS 105), (anon_sym_match, ACTIONS 107), (anon_sym_async, ACTIONS 109),
    (anon_sym_for, ACTIONS 111), (anon_sym_while, ACTIONS 113), (anon_sym_try, ACTIONS 115),
    (anon_sym_with, ACTIONS 117), (anon_sym_def, ACTIONS 119), (anon_sym_fn, ACTIONS 119),
    (anon_sym_LBRACK, ACTIONS 59), (anon_sym_LBRACE, ACTIONS 61), (anon_sym_global, ACTIONS 63),
    (anon_sym_nonlocal, ACTIONS 65), (anon_sym_exec, ACTIONS 67), (anon_sym_type, ACTIONS 69),
    (anon_sym_class, ACTIONS 121), (anon_sym_struct, ACTIONS 121), (anon_sym_mut, ACTIONS 73),
    (anon_sym_out, ACTIONS 73), (anon_sym_trait, ACTIONS 123), (anon_sym_AT, ACTIONS 77),
    (anon_sym_DASH, ACTIONS 79), (anon_sym_PLUS, ACTIONS 79), (anon_sym_ref, ACTIONS 81),
    (anon_sym_var, ACTIONS 81), (anon_sym_not, ACTIONS 83), (anon_sym_TILDE, ACTIONS 79),
    (anon_sym_lambda, ACTIONS 85), (anon_sym_yield, ACTIONS 87), (sym_ellipsis, ACTIONS 89),
    (anon_sym___mlir_type, ACTIONS 91), (sym_integer, ACTIONS 93), (sym_float, ACTIONS 89),
    (anon_sym_await, ACTIONS 95), (sym_true, ACTIONS 93), (sym_false, ACTIONS 93),
    (sym_none, ACTIONS 93), (sym_comment, ACTIONS 3), (sym_line_continuation, ACTIONS 3),
    (sym__dedent, ACTIONS 125), (sym_string_start, ACTIONS 97)]"

definition parse_table_592 :: "(nat \<times> nat) list" where "parse_table_592 = [
    (sym__statement, STATE 927), (sym__simple_statements, STATE 927),
    (sym_import_statement, STATE 11814), (sym_future_import_statement, STATE 11814),
    (sym_import_from_statement, STATE 11814), (sym_print_statement, STATE 11814),
    (sym_assert_statement, STATE 11814), (sym_comptime_assert_statement, STATE 11814),
    (sym_expression_statement, STATE 11814), (sym_tuple_expression, STATE 12425),
    (sym_named_expression, STATE 7969), (sym__named_expression_lhs, STATE 12752),
    (sym_return_statement, STATE 11814), (sym_delete_statement, STATE 11814),
    (sym_raise_statement, STATE 11814), (sym_pass_statement, STATE 11814),
    (sym_break_statement, STATE 11814), (sym_continue_statement, STATE 11814),
    (sym_extension_definition, STATE 927), (sym_mlir_region, STATE 927),
    (sym_comptime_statement, STATE 927), (sym_if_statement, STATE 927),
    (sym_match_statement, STATE 927), (sym_for_statement, STATE 927),
    (sym_while_statement, STATE 927), (sym_try_statement, STATE 927),
    (sym_with_statement, STATE 927), (sym_function_definition, STATE 927),
    (sym_global_statement, STATE 11814), (sym_nonlocal_statement, STATE 11814),
    (sym_exec_statement, STATE 11814), (sym_type_alias_statement, STATE 11814),
    (sym_parameterized_alias_statement, STATE 11814), (sym_class_definition, STATE 927),
    (sym_trait_definition, STATE 927), (sym_decorated_definition, STATE 927),
    (sym_decorator, STATE 3670), (sym_block, STATE 5637), (sym_pattern, STATE 8086),
    (sym_tuple_pattern, STATE 8101), (sym_list_pattern, STATE 8101),
    (sym_list_splat_pattern, STATE 6819), (sym_as_pattern, STATE 7969),
    (sym_expression, STATE 9883), (sym_primary_expression, STATE 7326),
    (sym_comptime_expression, STATE 7017), (sym_transfer_expression, STATE 7017),
    (sym_not_operator, STATE 7969), (sym_boolean_operator, STATE 7969),
    (sym_binary_operator, STATE 7017), (sym_unary_operator, STATE 7017),
    (sym_comparison_operator, STATE 7969), (sym_lambda, STATE 7969),
    (sym_assignment, STATE 12425), (sym_augmented_assignment, STATE 12425),
    (sym_pattern_list, STATE 8578), (sym_yield, STATE 12425), (sym_attribute, STATE 6836),
    (sym_subscript, STATE 6838), (sym_call, STATE 6845), (sym_mlir_type, STATE 7017),
    (sym_list, STATE 7017), (sym_set, STATE 7017), (sym_tuple, STATE 7017),
    (sym_dictionary, STATE 7017), (sym_struct_literal, STATE 7017),
    (sym_list_comprehension, STATE 7017), (sym_dictionary_comprehension, STATE 7017),
    (sym_set_comprehension, STATE 7017), (sym_generator_expression, STATE 7017),
    (sym_parenthesized_expression, STATE 7017), (sym_conditional_expression, STATE 7969),
    (sym_concatenated_string, STATE 7017), (sym_string, STATE 6751), (sym_await, STATE 7017),
    (aux_sym_module_repeat1, STATE 927), (aux_sym_decorated_definition_repeat1, STATE 3670),
    (sym_identifier, ACTIONS 9), (anon_sym_import, ACTIONS 11), (anon_sym_from, ACTIONS 13),
    (anon_sym_LPAREN, ACTIONS 15), (anon_sym_STAR, ACTIONS 17), (anon_sym_print, ACTIONS 19),
    (anon_sym_comptime, ACTIONS 99), (anon_sym_assert, ACTIONS 23),
    (anon_sym___comptime_assert, ACTIONS 25), (anon_sym_return, ACTIONS 27),
    (anon_sym_del, ACTIONS 29), (anon_sym_raise, ACTIONS 31), (anon_sym_pass, ACTIONS 33),
    (anon_sym_break, ACTIONS 35), (anon_sym_continue, ACTIONS 37),
    (anon_sym___extension, ACTIONS 101), (anon_sym___mlir_region, ACTIONS 103),
    (anon_sym_if, ACTIONS 105), (anon_sym_match, ACTIONS 107), (anon_sym_async, ACTIONS 109),
    (anon_sym_for, ACTIONS 111), (anon_sym_while, ACTIONS 113), (anon_sym_try, ACTIONS 115),
    (anon_sym_with, ACTIONS 117), (anon_sym_def, ACTIONS 119), (anon_sym_fn, ACTIONS 119),
    (anon_sym_LBRACK, ACTIONS 59), (anon_sym_LBRACE, ACTIONS 61), (anon_sym_global, ACTIONS 63),
    (anon_sym_nonlocal, ACTIONS 65), (anon_sym_exec, ACTIONS 67), (anon_sym_type, ACTIONS 69),
    (anon_sym_class, ACTIONS 121), (anon_sym_struct, ACTIONS 121), (anon_sym_mut, ACTIONS 73),
    (anon_sym_out, ACTIONS 73), (anon_sym_trait, ACTIONS 123), (anon_sym_AT, ACTIONS 77),
    (anon_sym_DASH, ACTIONS 79), (anon_sym_PLUS, ACTIONS 79), (anon_sym_ref, ACTIONS 81),
    (anon_sym_var, ACTIONS 81), (anon_sym_not, ACTIONS 83), (anon_sym_TILDE, ACTIONS 79),
    (anon_sym_lambda, ACTIONS 85), (anon_sym_yield, ACTIONS 87), (sym_ellipsis, ACTIONS 89),
    (anon_sym___mlir_type, ACTIONS 91), (sym_integer, ACTIONS 93), (sym_float, ACTIONS 89),
    (anon_sym_await, ACTIONS 95), (sym_true, ACTIONS 93), (sym_false, ACTIONS 93),
    (sym_none, ACTIONS 93), (sym_comment, ACTIONS 3), (sym_line_continuation, ACTIONS 3),
    (sym__dedent, ACTIONS 125), (sym_string_start, ACTIONS 97)]"

definition parse_table_593 :: "(nat \<times> nat) list" where "parse_table_593 = [
    (sym__statement, STATE 927), (sym__simple_statements, STATE 927),
    (sym_import_statement, STATE 11814), (sym_future_import_statement, STATE 11814),
    (sym_import_from_statement, STATE 11814), (sym_print_statement, STATE 11814),
    (sym_assert_statement, STATE 11814), (sym_comptime_assert_statement, STATE 11814),
    (sym_expression_statement, STATE 11814), (sym_tuple_expression, STATE 12425),
    (sym_named_expression, STATE 7969), (sym__named_expression_lhs, STATE 12752),
    (sym_return_statement, STATE 11814), (sym_delete_statement, STATE 11814),
    (sym_raise_statement, STATE 11814), (sym_pass_statement, STATE 11814),
    (sym_break_statement, STATE 11814), (sym_continue_statement, STATE 11814),
    (sym_extension_definition, STATE 927), (sym_mlir_region, STATE 927),
    (sym_comptime_statement, STATE 927), (sym_if_statement, STATE 927),
    (sym_match_statement, STATE 927), (sym_for_statement, STATE 927),
    (sym_while_statement, STATE 927), (sym_try_statement, STATE 927),
    (sym_with_statement, STATE 927), (sym_function_definition, STATE 927),
    (sym_global_statement, STATE 11814), (sym_nonlocal_statement, STATE 11814),
    (sym_exec_statement, STATE 11814), (sym_type_alias_statement, STATE 11814),
    (sym_parameterized_alias_statement, STATE 11814), (sym_class_definition, STATE 927),
    (sym_trait_definition, STATE 927), (sym_decorated_definition, STATE 927),
    (sym_decorator, STATE 3670), (sym_block, STATE 5642), (sym_pattern, STATE 8086),
    (sym_tuple_pattern, STATE 8101), (sym_list_pattern, STATE 8101),
    (sym_list_splat_pattern, STATE 6819), (sym_as_pattern, STATE 7969),
    (sym_expression, STATE 9883), (sym_primary_expression, STATE 7326),
    (sym_comptime_expression, STATE 7017), (sym_transfer_expression, STATE 7017),
    (sym_not_operator, STATE 7969), (sym_boolean_operator, STATE 7969),
    (sym_binary_operator, STATE 7017), (sym_unary_operator, STATE 7017),
    (sym_comparison_operator, STATE 7969), (sym_lambda, STATE 7969),
    (sym_assignment, STATE 12425), (sym_augmented_assignment, STATE 12425),
    (sym_pattern_list, STATE 8578), (sym_yield, STATE 12425), (sym_attribute, STATE 6836),
    (sym_subscript, STATE 6838), (sym_call, STATE 6845), (sym_mlir_type, STATE 7017),
    (sym_list, STATE 7017), (sym_set, STATE 7017), (sym_tuple, STATE 7017),
    (sym_dictionary, STATE 7017), (sym_struct_literal, STATE 7017),
    (sym_list_comprehension, STATE 7017), (sym_dictionary_comprehension, STATE 7017),
    (sym_set_comprehension, STATE 7017), (sym_generator_expression, STATE 7017),
    (sym_parenthesized_expression, STATE 7017), (sym_conditional_expression, STATE 7969),
    (sym_concatenated_string, STATE 7017), (sym_string, STATE 6751), (sym_await, STATE 7017),
    (aux_sym_module_repeat1, STATE 927), (aux_sym_decorated_definition_repeat1, STATE 3670),
    (sym_identifier, ACTIONS 9), (anon_sym_import, ACTIONS 11), (anon_sym_from, ACTIONS 13),
    (anon_sym_LPAREN, ACTIONS 15), (anon_sym_STAR, ACTIONS 17), (anon_sym_print, ACTIONS 19),
    (anon_sym_comptime, ACTIONS 99), (anon_sym_assert, ACTIONS 23),
    (anon_sym___comptime_assert, ACTIONS 25), (anon_sym_return, ACTIONS 27),
    (anon_sym_del, ACTIONS 29), (anon_sym_raise, ACTIONS 31), (anon_sym_pass, ACTIONS 33),
    (anon_sym_break, ACTIONS 35), (anon_sym_continue, ACTIONS 37),
    (anon_sym___extension, ACTIONS 101), (anon_sym___mlir_region, ACTIONS 103),
    (anon_sym_if, ACTIONS 105), (anon_sym_match, ACTIONS 107), (anon_sym_async, ACTIONS 109),
    (anon_sym_for, ACTIONS 111), (anon_sym_while, ACTIONS 113), (anon_sym_try, ACTIONS 115),
    (anon_sym_with, ACTIONS 117), (anon_sym_def, ACTIONS 119), (anon_sym_fn, ACTIONS 119),
    (anon_sym_LBRACK, ACTIONS 59), (anon_sym_LBRACE, ACTIONS 61), (anon_sym_global, ACTIONS 63),
    (anon_sym_nonlocal, ACTIONS 65), (anon_sym_exec, ACTIONS 67), (anon_sym_type, ACTIONS 69),
    (anon_sym_class, ACTIONS 121), (anon_sym_struct, ACTIONS 121), (anon_sym_mut, ACTIONS 73),
    (anon_sym_out, ACTIONS 73), (anon_sym_trait, ACTIONS 123), (anon_sym_AT, ACTIONS 77),
    (anon_sym_DASH, ACTIONS 79), (anon_sym_PLUS, ACTIONS 79), (anon_sym_ref, ACTIONS 81),
    (anon_sym_var, ACTIONS 81), (anon_sym_not, ACTIONS 83), (anon_sym_TILDE, ACTIONS 79),
    (anon_sym_lambda, ACTIONS 85), (anon_sym_yield, ACTIONS 87), (sym_ellipsis, ACTIONS 89),
    (anon_sym___mlir_type, ACTIONS 91), (sym_integer, ACTIONS 93), (sym_float, ACTIONS 89),
    (anon_sym_await, ACTIONS 95), (sym_true, ACTIONS 93), (sym_false, ACTIONS 93),
    (sym_none, ACTIONS 93), (sym_comment, ACTIONS 3), (sym_line_continuation, ACTIONS 3),
    (sym__dedent, ACTIONS 125), (sym_string_start, ACTIONS 97)]"

definition parse_table_594 :: "(nat \<times> nat) list" where "parse_table_594 = [
    (sym__statement, STATE 927), (sym__simple_statements, STATE 927),
    (sym_import_statement, STATE 11814), (sym_future_import_statement, STATE 11814),
    (sym_import_from_statement, STATE 11814), (sym_print_statement, STATE 11814),
    (sym_assert_statement, STATE 11814), (sym_comptime_assert_statement, STATE 11814),
    (sym_expression_statement, STATE 11814), (sym_tuple_expression, STATE 12425),
    (sym_named_expression, STATE 7969), (sym__named_expression_lhs, STATE 12752),
    (sym_return_statement, STATE 11814), (sym_delete_statement, STATE 11814),
    (sym_raise_statement, STATE 11814), (sym_pass_statement, STATE 11814),
    (sym_break_statement, STATE 11814), (sym_continue_statement, STATE 11814),
    (sym_extension_definition, STATE 927), (sym_mlir_region, STATE 927),
    (sym_comptime_statement, STATE 927), (sym_if_statement, STATE 927),
    (sym_match_statement, STATE 927), (sym_for_statement, STATE 927),
    (sym_while_statement, STATE 927), (sym_try_statement, STATE 927),
    (sym_with_statement, STATE 927), (sym_function_definition, STATE 927),
    (sym_global_statement, STATE 11814), (sym_nonlocal_statement, STATE 11814),
    (sym_exec_statement, STATE 11814), (sym_type_alias_statement, STATE 11814),
    (sym_parameterized_alias_statement, STATE 11814), (sym_class_definition, STATE 927),
    (sym_trait_definition, STATE 927), (sym_decorated_definition, STATE 927),
    (sym_decorator, STATE 3670), (sym_block, STATE 5649), (sym_pattern, STATE 8086),
    (sym_tuple_pattern, STATE 8101), (sym_list_pattern, STATE 8101),
    (sym_list_splat_pattern, STATE 6819), (sym_as_pattern, STATE 7969),
    (sym_expression, STATE 9883), (sym_primary_expression, STATE 7326),
    (sym_comptime_expression, STATE 7017), (sym_transfer_expression, STATE 7017),
    (sym_not_operator, STATE 7969), (sym_boolean_operator, STATE 7969),
    (sym_binary_operator, STATE 7017), (sym_unary_operator, STATE 7017),
    (sym_comparison_operator, STATE 7969), (sym_lambda, STATE 7969),
    (sym_assignment, STATE 12425), (sym_augmented_assignment, STATE 12425),
    (sym_pattern_list, STATE 8578), (sym_yield, STATE 12425), (sym_attribute, STATE 6836),
    (sym_subscript, STATE 6838), (sym_call, STATE 6845), (sym_mlir_type, STATE 7017),
    (sym_list, STATE 7017), (sym_set, STATE 7017), (sym_tuple, STATE 7017),
    (sym_dictionary, STATE 7017), (sym_struct_literal, STATE 7017),
    (sym_list_comprehension, STATE 7017), (sym_dictionary_comprehension, STATE 7017),
    (sym_set_comprehension, STATE 7017), (sym_generator_expression, STATE 7017),
    (sym_parenthesized_expression, STATE 7017), (sym_conditional_expression, STATE 7969),
    (sym_concatenated_string, STATE 7017), (sym_string, STATE 6751), (sym_await, STATE 7017),
    (aux_sym_module_repeat1, STATE 927), (aux_sym_decorated_definition_repeat1, STATE 3670),
    (sym_identifier, ACTIONS 9), (anon_sym_import, ACTIONS 11), (anon_sym_from, ACTIONS 13),
    (anon_sym_LPAREN, ACTIONS 15), (anon_sym_STAR, ACTIONS 17), (anon_sym_print, ACTIONS 19),
    (anon_sym_comptime, ACTIONS 99), (anon_sym_assert, ACTIONS 23),
    (anon_sym___comptime_assert, ACTIONS 25), (anon_sym_return, ACTIONS 27),
    (anon_sym_del, ACTIONS 29), (anon_sym_raise, ACTIONS 31), (anon_sym_pass, ACTIONS 33),
    (anon_sym_break, ACTIONS 35), (anon_sym_continue, ACTIONS 37),
    (anon_sym___extension, ACTIONS 101), (anon_sym___mlir_region, ACTIONS 103),
    (anon_sym_if, ACTIONS 105), (anon_sym_match, ACTIONS 107), (anon_sym_async, ACTIONS 109),
    (anon_sym_for, ACTIONS 111), (anon_sym_while, ACTIONS 113), (anon_sym_try, ACTIONS 115),
    (anon_sym_with, ACTIONS 117), (anon_sym_def, ACTIONS 119), (anon_sym_fn, ACTIONS 119),
    (anon_sym_LBRACK, ACTIONS 59), (anon_sym_LBRACE, ACTIONS 61), (anon_sym_global, ACTIONS 63),
    (anon_sym_nonlocal, ACTIONS 65), (anon_sym_exec, ACTIONS 67), (anon_sym_type, ACTIONS 69),
    (anon_sym_class, ACTIONS 121), (anon_sym_struct, ACTIONS 121), (anon_sym_mut, ACTIONS 73),
    (anon_sym_out, ACTIONS 73), (anon_sym_trait, ACTIONS 123), (anon_sym_AT, ACTIONS 77),
    (anon_sym_DASH, ACTIONS 79), (anon_sym_PLUS, ACTIONS 79), (anon_sym_ref, ACTIONS 81),
    (anon_sym_var, ACTIONS 81), (anon_sym_not, ACTIONS 83), (anon_sym_TILDE, ACTIONS 79),
    (anon_sym_lambda, ACTIONS 85), (anon_sym_yield, ACTIONS 87), (sym_ellipsis, ACTIONS 89),
    (anon_sym___mlir_type, ACTIONS 91), (sym_integer, ACTIONS 93), (sym_float, ACTIONS 89),
    (anon_sym_await, ACTIONS 95), (sym_true, ACTIONS 93), (sym_false, ACTIONS 93),
    (sym_none, ACTIONS 93), (sym_comment, ACTIONS 3), (sym_line_continuation, ACTIONS 3),
    (sym__dedent, ACTIONS 125), (sym_string_start, ACTIONS 97)]"

definition parse_table_595 :: "(nat \<times> nat) list" where "parse_table_595 = [
    (sym__statement, STATE 927), (sym__simple_statements, STATE 927),
    (sym_import_statement, STATE 11814), (sym_future_import_statement, STATE 11814),
    (sym_import_from_statement, STATE 11814), (sym_print_statement, STATE 11814),
    (sym_assert_statement, STATE 11814), (sym_comptime_assert_statement, STATE 11814),
    (sym_expression_statement, STATE 11814), (sym_tuple_expression, STATE 12425),
    (sym_named_expression, STATE 7969), (sym__named_expression_lhs, STATE 12752),
    (sym_return_statement, STATE 11814), (sym_delete_statement, STATE 11814),
    (sym_raise_statement, STATE 11814), (sym_pass_statement, STATE 11814),
    (sym_break_statement, STATE 11814), (sym_continue_statement, STATE 11814),
    (sym_extension_definition, STATE 927), (sym_mlir_region, STATE 927),
    (sym_comptime_statement, STATE 927), (sym_if_statement, STATE 927),
    (sym_match_statement, STATE 927), (sym_for_statement, STATE 927),
    (sym_while_statement, STATE 927), (sym_try_statement, STATE 927),
    (sym_with_statement, STATE 927), (sym_function_definition, STATE 927),
    (sym_global_statement, STATE 11814), (sym_nonlocal_statement, STATE 11814),
    (sym_exec_statement, STATE 11814), (sym_type_alias_statement, STATE 11814),
    (sym_parameterized_alias_statement, STATE 11814), (sym_class_definition, STATE 927),
    (sym_trait_definition, STATE 927), (sym_decorated_definition, STATE 927),
    (sym_decorator, STATE 3670), (sym_block, STATE 5654), (sym_pattern, STATE 8086),
    (sym_tuple_pattern, STATE 8101), (sym_list_pattern, STATE 8101),
    (sym_list_splat_pattern, STATE 6819), (sym_as_pattern, STATE 7969),
    (sym_expression, STATE 9883), (sym_primary_expression, STATE 7326),
    (sym_comptime_expression, STATE 7017), (sym_transfer_expression, STATE 7017),
    (sym_not_operator, STATE 7969), (sym_boolean_operator, STATE 7969),
    (sym_binary_operator, STATE 7017), (sym_unary_operator, STATE 7017),
    (sym_comparison_operator, STATE 7969), (sym_lambda, STATE 7969),
    (sym_assignment, STATE 12425), (sym_augmented_assignment, STATE 12425),
    (sym_pattern_list, STATE 8578), (sym_yield, STATE 12425), (sym_attribute, STATE 6836),
    (sym_subscript, STATE 6838), (sym_call, STATE 6845), (sym_mlir_type, STATE 7017),
    (sym_list, STATE 7017), (sym_set, STATE 7017), (sym_tuple, STATE 7017),
    (sym_dictionary, STATE 7017), (sym_struct_literal, STATE 7017),
    (sym_list_comprehension, STATE 7017), (sym_dictionary_comprehension, STATE 7017),
    (sym_set_comprehension, STATE 7017), (sym_generator_expression, STATE 7017),
    (sym_parenthesized_expression, STATE 7017), (sym_conditional_expression, STATE 7969),
    (sym_concatenated_string, STATE 7017), (sym_string, STATE 6751), (sym_await, STATE 7017),
    (aux_sym_module_repeat1, STATE 927), (aux_sym_decorated_definition_repeat1, STATE 3670),
    (sym_identifier, ACTIONS 9), (anon_sym_import, ACTIONS 11), (anon_sym_from, ACTIONS 13),
    (anon_sym_LPAREN, ACTIONS 15), (anon_sym_STAR, ACTIONS 17), (anon_sym_print, ACTIONS 19),
    (anon_sym_comptime, ACTIONS 99), (anon_sym_assert, ACTIONS 23),
    (anon_sym___comptime_assert, ACTIONS 25), (anon_sym_return, ACTIONS 27),
    (anon_sym_del, ACTIONS 29), (anon_sym_raise, ACTIONS 31), (anon_sym_pass, ACTIONS 33),
    (anon_sym_break, ACTIONS 35), (anon_sym_continue, ACTIONS 37),
    (anon_sym___extension, ACTIONS 101), (anon_sym___mlir_region, ACTIONS 103),
    (anon_sym_if, ACTIONS 105), (anon_sym_match, ACTIONS 107), (anon_sym_async, ACTIONS 109),
    (anon_sym_for, ACTIONS 111), (anon_sym_while, ACTIONS 113), (anon_sym_try, ACTIONS 115),
    (anon_sym_with, ACTIONS 117), (anon_sym_def, ACTIONS 119), (anon_sym_fn, ACTIONS 119),
    (anon_sym_LBRACK, ACTIONS 59), (anon_sym_LBRACE, ACTIONS 61), (anon_sym_global, ACTIONS 63),
    (anon_sym_nonlocal, ACTIONS 65), (anon_sym_exec, ACTIONS 67), (anon_sym_type, ACTIONS 69),
    (anon_sym_class, ACTIONS 121), (anon_sym_struct, ACTIONS 121), (anon_sym_mut, ACTIONS 73),
    (anon_sym_out, ACTIONS 73), (anon_sym_trait, ACTIONS 123), (anon_sym_AT, ACTIONS 77),
    (anon_sym_DASH, ACTIONS 79), (anon_sym_PLUS, ACTIONS 79), (anon_sym_ref, ACTIONS 81),
    (anon_sym_var, ACTIONS 81), (anon_sym_not, ACTIONS 83), (anon_sym_TILDE, ACTIONS 79),
    (anon_sym_lambda, ACTIONS 85), (anon_sym_yield, ACTIONS 87), (sym_ellipsis, ACTIONS 89),
    (anon_sym___mlir_type, ACTIONS 91), (sym_integer, ACTIONS 93), (sym_float, ACTIONS 89),
    (anon_sym_await, ACTIONS 95), (sym_true, ACTIONS 93), (sym_false, ACTIONS 93),
    (sym_none, ACTIONS 93), (sym_comment, ACTIONS 3), (sym_line_continuation, ACTIONS 3),
    (sym__dedent, ACTIONS 125), (sym_string_start, ACTIONS 97)]"

definition parse_table_596 :: "(nat \<times> nat) list" where "parse_table_596 = [
    (sym__statement, STATE 927), (sym__simple_statements, STATE 927),
    (sym_import_statement, STATE 11814), (sym_future_import_statement, STATE 11814),
    (sym_import_from_statement, STATE 11814), (sym_print_statement, STATE 11814),
    (sym_assert_statement, STATE 11814), (sym_comptime_assert_statement, STATE 11814),
    (sym_expression_statement, STATE 11814), (sym_tuple_expression, STATE 12425),
    (sym_named_expression, STATE 7969), (sym__named_expression_lhs, STATE 12752),
    (sym_return_statement, STATE 11814), (sym_delete_statement, STATE 11814),
    (sym_raise_statement, STATE 11814), (sym_pass_statement, STATE 11814),
    (sym_break_statement, STATE 11814), (sym_continue_statement, STATE 11814),
    (sym_extension_definition, STATE 927), (sym_mlir_region, STATE 927),
    (sym_comptime_statement, STATE 927), (sym_if_statement, STATE 927),
    (sym_match_statement, STATE 927), (sym_for_statement, STATE 927),
    (sym_while_statement, STATE 927), (sym_try_statement, STATE 927),
    (sym_with_statement, STATE 927), (sym_function_definition, STATE 927),
    (sym_global_statement, STATE 11814), (sym_nonlocal_statement, STATE 11814),
    (sym_exec_statement, STATE 11814), (sym_type_alias_statement, STATE 11814),
    (sym_parameterized_alias_statement, STATE 11814), (sym_class_definition, STATE 927),
    (sym_trait_definition, STATE 927), (sym_decorated_definition, STATE 927),
    (sym_decorator, STATE 3670), (sym_block, STATE 5655), (sym_pattern, STATE 8086),
    (sym_tuple_pattern, STATE 8101), (sym_list_pattern, STATE 8101),
    (sym_list_splat_pattern, STATE 6819), (sym_as_pattern, STATE 7969),
    (sym_expression, STATE 9883), (sym_primary_expression, STATE 7326),
    (sym_comptime_expression, STATE 7017), (sym_transfer_expression, STATE 7017),
    (sym_not_operator, STATE 7969), (sym_boolean_operator, STATE 7969),
    (sym_binary_operator, STATE 7017), (sym_unary_operator, STATE 7017),
    (sym_comparison_operator, STATE 7969), (sym_lambda, STATE 7969),
    (sym_assignment, STATE 12425), (sym_augmented_assignment, STATE 12425),
    (sym_pattern_list, STATE 8578), (sym_yield, STATE 12425), (sym_attribute, STATE 6836),
    (sym_subscript, STATE 6838), (sym_call, STATE 6845), (sym_mlir_type, STATE 7017),
    (sym_list, STATE 7017), (sym_set, STATE 7017), (sym_tuple, STATE 7017),
    (sym_dictionary, STATE 7017), (sym_struct_literal, STATE 7017),
    (sym_list_comprehension, STATE 7017), (sym_dictionary_comprehension, STATE 7017),
    (sym_set_comprehension, STATE 7017), (sym_generator_expression, STATE 7017),
    (sym_parenthesized_expression, STATE 7017), (sym_conditional_expression, STATE 7969),
    (sym_concatenated_string, STATE 7017), (sym_string, STATE 6751), (sym_await, STATE 7017),
    (aux_sym_module_repeat1, STATE 927), (aux_sym_decorated_definition_repeat1, STATE 3670),
    (sym_identifier, ACTIONS 9), (anon_sym_import, ACTIONS 11), (anon_sym_from, ACTIONS 13),
    (anon_sym_LPAREN, ACTIONS 15), (anon_sym_STAR, ACTIONS 17), (anon_sym_print, ACTIONS 19),
    (anon_sym_comptime, ACTIONS 99), (anon_sym_assert, ACTIONS 23),
    (anon_sym___comptime_assert, ACTIONS 25), (anon_sym_return, ACTIONS 27),
    (anon_sym_del, ACTIONS 29), (anon_sym_raise, ACTIONS 31), (anon_sym_pass, ACTIONS 33),
    (anon_sym_break, ACTIONS 35), (anon_sym_continue, ACTIONS 37),
    (anon_sym___extension, ACTIONS 101), (anon_sym___mlir_region, ACTIONS 103),
    (anon_sym_if, ACTIONS 105), (anon_sym_match, ACTIONS 107), (anon_sym_async, ACTIONS 109),
    (anon_sym_for, ACTIONS 111), (anon_sym_while, ACTIONS 113), (anon_sym_try, ACTIONS 115),
    (anon_sym_with, ACTIONS 117), (anon_sym_def, ACTIONS 119), (anon_sym_fn, ACTIONS 119),
    (anon_sym_LBRACK, ACTIONS 59), (anon_sym_LBRACE, ACTIONS 61), (anon_sym_global, ACTIONS 63),
    (anon_sym_nonlocal, ACTIONS 65), (anon_sym_exec, ACTIONS 67), (anon_sym_type, ACTIONS 69),
    (anon_sym_class, ACTIONS 121), (anon_sym_struct, ACTIONS 121), (anon_sym_mut, ACTIONS 73),
    (anon_sym_out, ACTIONS 73), (anon_sym_trait, ACTIONS 123), (anon_sym_AT, ACTIONS 77),
    (anon_sym_DASH, ACTIONS 79), (anon_sym_PLUS, ACTIONS 79), (anon_sym_ref, ACTIONS 81),
    (anon_sym_var, ACTIONS 81), (anon_sym_not, ACTIONS 83), (anon_sym_TILDE, ACTIONS 79),
    (anon_sym_lambda, ACTIONS 85), (anon_sym_yield, ACTIONS 87), (sym_ellipsis, ACTIONS 89),
    (anon_sym___mlir_type, ACTIONS 91), (sym_integer, ACTIONS 93), (sym_float, ACTIONS 89),
    (anon_sym_await, ACTIONS 95), (sym_true, ACTIONS 93), (sym_false, ACTIONS 93),
    (sym_none, ACTIONS 93), (sym_comment, ACTIONS 3), (sym_line_continuation, ACTIONS 3),
    (sym__dedent, ACTIONS 125), (sym_string_start, ACTIONS 97)]"

definition parse_table_597 :: "(nat \<times> nat) list" where "parse_table_597 = [
    (sym__statement, STATE 927), (sym__simple_statements, STATE 927),
    (sym_import_statement, STATE 11814), (sym_future_import_statement, STATE 11814),
    (sym_import_from_statement, STATE 11814), (sym_print_statement, STATE 11814),
    (sym_assert_statement, STATE 11814), (sym_comptime_assert_statement, STATE 11814),
    (sym_expression_statement, STATE 11814), (sym_tuple_expression, STATE 12425),
    (sym_named_expression, STATE 7969), (sym__named_expression_lhs, STATE 12752),
    (sym_return_statement, STATE 11814), (sym_delete_statement, STATE 11814),
    (sym_raise_statement, STATE 11814), (sym_pass_statement, STATE 11814),
    (sym_break_statement, STATE 11814), (sym_continue_statement, STATE 11814),
    (sym_extension_definition, STATE 927), (sym_mlir_region, STATE 927),
    (sym_comptime_statement, STATE 927), (sym_if_statement, STATE 927),
    (sym_match_statement, STATE 927), (sym_for_statement, STATE 927),
    (sym_while_statement, STATE 927), (sym_try_statement, STATE 927),
    (sym_with_statement, STATE 927), (sym_function_definition, STATE 927),
    (sym_global_statement, STATE 11814), (sym_nonlocal_statement, STATE 11814),
    (sym_exec_statement, STATE 11814), (sym_type_alias_statement, STATE 11814),
    (sym_parameterized_alias_statement, STATE 11814), (sym_class_definition, STATE 927),
    (sym_trait_definition, STATE 927), (sym_decorated_definition, STATE 927),
    (sym_decorator, STATE 3670), (sym_block, STATE 5658), (sym_pattern, STATE 8086),
    (sym_tuple_pattern, STATE 8101), (sym_list_pattern, STATE 8101),
    (sym_list_splat_pattern, STATE 6819), (sym_as_pattern, STATE 7969),
    (sym_expression, STATE 9883), (sym_primary_expression, STATE 7326),
    (sym_comptime_expression, STATE 7017), (sym_transfer_expression, STATE 7017),
    (sym_not_operator, STATE 7969), (sym_boolean_operator, STATE 7969),
    (sym_binary_operator, STATE 7017), (sym_unary_operator, STATE 7017),
    (sym_comparison_operator, STATE 7969), (sym_lambda, STATE 7969),
    (sym_assignment, STATE 12425), (sym_augmented_assignment, STATE 12425),
    (sym_pattern_list, STATE 8578), (sym_yield, STATE 12425), (sym_attribute, STATE 6836),
    (sym_subscript, STATE 6838), (sym_call, STATE 6845), (sym_mlir_type, STATE 7017),
    (sym_list, STATE 7017), (sym_set, STATE 7017), (sym_tuple, STATE 7017),
    (sym_dictionary, STATE 7017), (sym_struct_literal, STATE 7017),
    (sym_list_comprehension, STATE 7017), (sym_dictionary_comprehension, STATE 7017),
    (sym_set_comprehension, STATE 7017), (sym_generator_expression, STATE 7017),
    (sym_parenthesized_expression, STATE 7017), (sym_conditional_expression, STATE 7969),
    (sym_concatenated_string, STATE 7017), (sym_string, STATE 6751), (sym_await, STATE 7017),
    (aux_sym_module_repeat1, STATE 927), (aux_sym_decorated_definition_repeat1, STATE 3670),
    (sym_identifier, ACTIONS 9), (anon_sym_import, ACTIONS 11), (anon_sym_from, ACTIONS 13),
    (anon_sym_LPAREN, ACTIONS 15), (anon_sym_STAR, ACTIONS 17), (anon_sym_print, ACTIONS 19),
    (anon_sym_comptime, ACTIONS 99), (anon_sym_assert, ACTIONS 23),
    (anon_sym___comptime_assert, ACTIONS 25), (anon_sym_return, ACTIONS 27),
    (anon_sym_del, ACTIONS 29), (anon_sym_raise, ACTIONS 31), (anon_sym_pass, ACTIONS 33),
    (anon_sym_break, ACTIONS 35), (anon_sym_continue, ACTIONS 37),
    (anon_sym___extension, ACTIONS 101), (anon_sym___mlir_region, ACTIONS 103),
    (anon_sym_if, ACTIONS 105), (anon_sym_match, ACTIONS 107), (anon_sym_async, ACTIONS 109),
    (anon_sym_for, ACTIONS 111), (anon_sym_while, ACTIONS 113), (anon_sym_try, ACTIONS 115),
    (anon_sym_with, ACTIONS 117), (anon_sym_def, ACTIONS 119), (anon_sym_fn, ACTIONS 119),
    (anon_sym_LBRACK, ACTIONS 59), (anon_sym_LBRACE, ACTIONS 61), (anon_sym_global, ACTIONS 63),
    (anon_sym_nonlocal, ACTIONS 65), (anon_sym_exec, ACTIONS 67), (anon_sym_type, ACTIONS 69),
    (anon_sym_class, ACTIONS 121), (anon_sym_struct, ACTIONS 121), (anon_sym_mut, ACTIONS 73),
    (anon_sym_out, ACTIONS 73), (anon_sym_trait, ACTIONS 123), (anon_sym_AT, ACTIONS 77),
    (anon_sym_DASH, ACTIONS 79), (anon_sym_PLUS, ACTIONS 79), (anon_sym_ref, ACTIONS 81),
    (anon_sym_var, ACTIONS 81), (anon_sym_not, ACTIONS 83), (anon_sym_TILDE, ACTIONS 79),
    (anon_sym_lambda, ACTIONS 85), (anon_sym_yield, ACTIONS 87), (sym_ellipsis, ACTIONS 89),
    (anon_sym___mlir_type, ACTIONS 91), (sym_integer, ACTIONS 93), (sym_float, ACTIONS 89),
    (anon_sym_await, ACTIONS 95), (sym_true, ACTIONS 93), (sym_false, ACTIONS 93),
    (sym_none, ACTIONS 93), (sym_comment, ACTIONS 3), (sym_line_continuation, ACTIONS 3),
    (sym__dedent, ACTIONS 125), (sym_string_start, ACTIONS 97)]"

definition parse_table_598 :: "(nat \<times> nat) list" where "parse_table_598 = [
    (sym__statement, STATE 927), (sym__simple_statements, STATE 927),
    (sym_import_statement, STATE 11814), (sym_future_import_statement, STATE 11814),
    (sym_import_from_statement, STATE 11814), (sym_print_statement, STATE 11814),
    (sym_assert_statement, STATE 11814), (sym_comptime_assert_statement, STATE 11814),
    (sym_expression_statement, STATE 11814), (sym_tuple_expression, STATE 12425),
    (sym_named_expression, STATE 7969), (sym__named_expression_lhs, STATE 12752),
    (sym_return_statement, STATE 11814), (sym_delete_statement, STATE 11814),
    (sym_raise_statement, STATE 11814), (sym_pass_statement, STATE 11814),
    (sym_break_statement, STATE 11814), (sym_continue_statement, STATE 11814),
    (sym_extension_definition, STATE 927), (sym_mlir_region, STATE 927),
    (sym_comptime_statement, STATE 927), (sym_if_statement, STATE 927),
    (sym_match_statement, STATE 927), (sym_for_statement, STATE 927),
    (sym_while_statement, STATE 927), (sym_try_statement, STATE 927),
    (sym_with_statement, STATE 927), (sym_function_definition, STATE 927),
    (sym_global_statement, STATE 11814), (sym_nonlocal_statement, STATE 11814),
    (sym_exec_statement, STATE 11814), (sym_type_alias_statement, STATE 11814),
    (sym_parameterized_alias_statement, STATE 11814), (sym_class_definition, STATE 927),
    (sym_trait_definition, STATE 927), (sym_decorated_definition, STATE 927),
    (sym_decorator, STATE 3670), (sym_block, STATE 5663), (sym_pattern, STATE 8086),
    (sym_tuple_pattern, STATE 8101), (sym_list_pattern, STATE 8101),
    (sym_list_splat_pattern, STATE 6819), (sym_as_pattern, STATE 7969),
    (sym_expression, STATE 9883), (sym_primary_expression, STATE 7326),
    (sym_comptime_expression, STATE 7017), (sym_transfer_expression, STATE 7017),
    (sym_not_operator, STATE 7969), (sym_boolean_operator, STATE 7969),
    (sym_binary_operator, STATE 7017), (sym_unary_operator, STATE 7017),
    (sym_comparison_operator, STATE 7969), (sym_lambda, STATE 7969),
    (sym_assignment, STATE 12425), (sym_augmented_assignment, STATE 12425),
    (sym_pattern_list, STATE 8578), (sym_yield, STATE 12425), (sym_attribute, STATE 6836),
    (sym_subscript, STATE 6838), (sym_call, STATE 6845), (sym_mlir_type, STATE 7017),
    (sym_list, STATE 7017), (sym_set, STATE 7017), (sym_tuple, STATE 7017),
    (sym_dictionary, STATE 7017), (sym_struct_literal, STATE 7017),
    (sym_list_comprehension, STATE 7017), (sym_dictionary_comprehension, STATE 7017),
    (sym_set_comprehension, STATE 7017), (sym_generator_expression, STATE 7017),
    (sym_parenthesized_expression, STATE 7017), (sym_conditional_expression, STATE 7969),
    (sym_concatenated_string, STATE 7017), (sym_string, STATE 6751), (sym_await, STATE 7017),
    (aux_sym_module_repeat1, STATE 927), (aux_sym_decorated_definition_repeat1, STATE 3670),
    (sym_identifier, ACTIONS 9), (anon_sym_import, ACTIONS 11), (anon_sym_from, ACTIONS 13),
    (anon_sym_LPAREN, ACTIONS 15), (anon_sym_STAR, ACTIONS 17), (anon_sym_print, ACTIONS 19),
    (anon_sym_comptime, ACTIONS 99), (anon_sym_assert, ACTIONS 23),
    (anon_sym___comptime_assert, ACTIONS 25), (anon_sym_return, ACTIONS 27),
    (anon_sym_del, ACTIONS 29), (anon_sym_raise, ACTIONS 31), (anon_sym_pass, ACTIONS 33),
    (anon_sym_break, ACTIONS 35), (anon_sym_continue, ACTIONS 37),
    (anon_sym___extension, ACTIONS 101), (anon_sym___mlir_region, ACTIONS 103),
    (anon_sym_if, ACTIONS 105), (anon_sym_match, ACTIONS 107), (anon_sym_async, ACTIONS 109),
    (anon_sym_for, ACTIONS 111), (anon_sym_while, ACTIONS 113), (anon_sym_try, ACTIONS 115),
    (anon_sym_with, ACTIONS 117), (anon_sym_def, ACTIONS 119), (anon_sym_fn, ACTIONS 119),
    (anon_sym_LBRACK, ACTIONS 59), (anon_sym_LBRACE, ACTIONS 61), (anon_sym_global, ACTIONS 63),
    (anon_sym_nonlocal, ACTIONS 65), (anon_sym_exec, ACTIONS 67), (anon_sym_type, ACTIONS 69),
    (anon_sym_class, ACTIONS 121), (anon_sym_struct, ACTIONS 121), (anon_sym_mut, ACTIONS 73),
    (anon_sym_out, ACTIONS 73), (anon_sym_trait, ACTIONS 123), (anon_sym_AT, ACTIONS 77),
    (anon_sym_DASH, ACTIONS 79), (anon_sym_PLUS, ACTIONS 79), (anon_sym_ref, ACTIONS 81),
    (anon_sym_var, ACTIONS 81), (anon_sym_not, ACTIONS 83), (anon_sym_TILDE, ACTIONS 79),
    (anon_sym_lambda, ACTIONS 85), (anon_sym_yield, ACTIONS 87), (sym_ellipsis, ACTIONS 89),
    (anon_sym___mlir_type, ACTIONS 91), (sym_integer, ACTIONS 93), (sym_float, ACTIONS 89),
    (anon_sym_await, ACTIONS 95), (sym_true, ACTIONS 93), (sym_false, ACTIONS 93),
    (sym_none, ACTIONS 93), (sym_comment, ACTIONS 3), (sym_line_continuation, ACTIONS 3),
    (sym__dedent, ACTIONS 125), (sym_string_start, ACTIONS 97)]"

definition parse_table_599 :: "(nat \<times> nat) list" where "parse_table_599 = [
    (sym__statement, STATE 927), (sym__simple_statements, STATE 927),
    (sym_import_statement, STATE 11814), (sym_future_import_statement, STATE 11814),
    (sym_import_from_statement, STATE 11814), (sym_print_statement, STATE 11814),
    (sym_assert_statement, STATE 11814), (sym_comptime_assert_statement, STATE 11814),
    (sym_expression_statement, STATE 11814), (sym_tuple_expression, STATE 12425),
    (sym_named_expression, STATE 7969), (sym__named_expression_lhs, STATE 12752),
    (sym_return_statement, STATE 11814), (sym_delete_statement, STATE 11814),
    (sym_raise_statement, STATE 11814), (sym_pass_statement, STATE 11814),
    (sym_break_statement, STATE 11814), (sym_continue_statement, STATE 11814),
    (sym_extension_definition, STATE 927), (sym_mlir_region, STATE 927),
    (sym_comptime_statement, STATE 927), (sym_if_statement, STATE 927),
    (sym_match_statement, STATE 927), (sym_for_statement, STATE 927),
    (sym_while_statement, STATE 927), (sym_try_statement, STATE 927),
    (sym_with_statement, STATE 927), (sym_function_definition, STATE 927),
    (sym_global_statement, STATE 11814), (sym_nonlocal_statement, STATE 11814),
    (sym_exec_statement, STATE 11814), (sym_type_alias_statement, STATE 11814),
    (sym_parameterized_alias_statement, STATE 11814), (sym_class_definition, STATE 927),
    (sym_trait_definition, STATE 927), (sym_decorated_definition, STATE 927),
    (sym_decorator, STATE 3670), (sym_block, STATE 5666), (sym_pattern, STATE 8086),
    (sym_tuple_pattern, STATE 8101), (sym_list_pattern, STATE 8101),
    (sym_list_splat_pattern, STATE 6819), (sym_as_pattern, STATE 7969),
    (sym_expression, STATE 9883), (sym_primary_expression, STATE 7326),
    (sym_comptime_expression, STATE 7017), (sym_transfer_expression, STATE 7017),
    (sym_not_operator, STATE 7969), (sym_boolean_operator, STATE 7969),
    (sym_binary_operator, STATE 7017), (sym_unary_operator, STATE 7017),
    (sym_comparison_operator, STATE 7969), (sym_lambda, STATE 7969),
    (sym_assignment, STATE 12425), (sym_augmented_assignment, STATE 12425),
    (sym_pattern_list, STATE 8578), (sym_yield, STATE 12425), (sym_attribute, STATE 6836),
    (sym_subscript, STATE 6838), (sym_call, STATE 6845), (sym_mlir_type, STATE 7017),
    (sym_list, STATE 7017), (sym_set, STATE 7017), (sym_tuple, STATE 7017),
    (sym_dictionary, STATE 7017), (sym_struct_literal, STATE 7017),
    (sym_list_comprehension, STATE 7017), (sym_dictionary_comprehension, STATE 7017),
    (sym_set_comprehension, STATE 7017), (sym_generator_expression, STATE 7017),
    (sym_parenthesized_expression, STATE 7017), (sym_conditional_expression, STATE 7969),
    (sym_concatenated_string, STATE 7017), (sym_string, STATE 6751), (sym_await, STATE 7017),
    (aux_sym_module_repeat1, STATE 927), (aux_sym_decorated_definition_repeat1, STATE 3670),
    (sym_identifier, ACTIONS 9), (anon_sym_import, ACTIONS 11), (anon_sym_from, ACTIONS 13),
    (anon_sym_LPAREN, ACTIONS 15), (anon_sym_STAR, ACTIONS 17), (anon_sym_print, ACTIONS 19),
    (anon_sym_comptime, ACTIONS 99), (anon_sym_assert, ACTIONS 23),
    (anon_sym___comptime_assert, ACTIONS 25), (anon_sym_return, ACTIONS 27),
    (anon_sym_del, ACTIONS 29), (anon_sym_raise, ACTIONS 31), (anon_sym_pass, ACTIONS 33),
    (anon_sym_break, ACTIONS 35), (anon_sym_continue, ACTIONS 37),
    (anon_sym___extension, ACTIONS 101), (anon_sym___mlir_region, ACTIONS 103),
    (anon_sym_if, ACTIONS 105), (anon_sym_match, ACTIONS 107), (anon_sym_async, ACTIONS 109),
    (anon_sym_for, ACTIONS 111), (anon_sym_while, ACTIONS 113), (anon_sym_try, ACTIONS 115),
    (anon_sym_with, ACTIONS 117), (anon_sym_def, ACTIONS 119), (anon_sym_fn, ACTIONS 119),
    (anon_sym_LBRACK, ACTIONS 59), (anon_sym_LBRACE, ACTIONS 61), (anon_sym_global, ACTIONS 63),
    (anon_sym_nonlocal, ACTIONS 65), (anon_sym_exec, ACTIONS 67), (anon_sym_type, ACTIONS 69),
    (anon_sym_class, ACTIONS 121), (anon_sym_struct, ACTIONS 121), (anon_sym_mut, ACTIONS 73),
    (anon_sym_out, ACTIONS 73), (anon_sym_trait, ACTIONS 123), (anon_sym_AT, ACTIONS 77),
    (anon_sym_DASH, ACTIONS 79), (anon_sym_PLUS, ACTIONS 79), (anon_sym_ref, ACTIONS 81),
    (anon_sym_var, ACTIONS 81), (anon_sym_not, ACTIONS 83), (anon_sym_TILDE, ACTIONS 79),
    (anon_sym_lambda, ACTIONS 85), (anon_sym_yield, ACTIONS 87), (sym_ellipsis, ACTIONS 89),
    (anon_sym___mlir_type, ACTIONS 91), (sym_integer, ACTIONS 93), (sym_float, ACTIONS 89),
    (anon_sym_await, ACTIONS 95), (sym_true, ACTIONS 93), (sym_false, ACTIONS 93),
    (sym_none, ACTIONS 93), (sym_comment, ACTIONS 3), (sym_line_continuation, ACTIONS 3),
    (sym__dedent, ACTIONS 125), (sym_string_start, ACTIONS 97)]"

end
