(* ===== verification/Mojo_Parse_Rows_4.thy ===== *)
theory Mojo_Parse_Rows_4
  imports Mojo_Grammar Mojo_Table_Macros
begin

text \<open>
  The rows of \<open>ts_parse_table\<close> (\<^verbatim>\<open>grammars/tree-sitter-mojo/src/parser.c\<close>) for the parse states from
  600 to 749: for a symbol, the group of actions in \<open>ts_parse_actions\<close> for a token and the next state
  for a nonterminal. Definitions only, one for each state.
\<close>

section \<open>Rows\<close>

definition parse_table_600 :: "(nat \<times> nat) list" where "parse_table_600 = [
    (sym__statement, STATE 927), (sym__simple_statements, STATE 927),
    (sym_import_statement, STATE 11814), (sym_future_import_statement, STATE 11814),
    (sym_import_from_statement, STATE 11814), (sym_print_statement, STATE 11814),
    (sym_assert_statement, STATE 11814), (sym_comptime_assert_statement, STATE 11814),
    (sym_expression_statement, STATE 11814), (sym_tuple_expression, STATE 12425),
    (sym_named_expression, STATE 7969), (sym__named_expression_lhs, STATE 12752),
    (sym_return_statement, STATE 11814), (sym_delete_statement, STATE 11814),
    (sym_raise_statement, STATE 11814), (sym_pass_statement, STATE 11814),
    (sym_break_statement, STATE 11814), (sym_continue_statement, STATE 11814),
    (sym_extension_definition, STATE 927), (sym_mlir_region, STATE 927),
    (sym_comptime_statement, STATE 927), (sym_if_statement, STATE 927),
    (sym_match_statement, STATE 927), (sym_for_statement, STATE 927),
    (sym_while_statement, STATE 927), (sym_try_statement, STATE 927),
    (sym_with_statement, STATE 927), (sym_function_definition, STATE 927),
    (sym_global_statement, STATE 11814), (sym_nonlocal_statement, STATE 11814),
    (sym_exec_statement, STATE 11814), (sym_type_alias_statement, STATE 11814),
    (sym_parameterized_alias_statement, STATE 11814), (sym_class_definition, STATE 927),
    (sym_trait_definition, STATE 927), (sym_decorated_definition, STATE 927),
    (sym_decorator, STATE 3670), (sym_block, STATE 5672), (sym_pattern, STATE 8086),
    (sym_tuple_pattern, STATE 8101), (sym_list_pattern, STATE 8101),
    (sym_list_splat_pattern, STATE 6819), (sym_as_pattern, STATE 7969),
    (sym_expression, STATE 9883), (sym_primary_expression, STATE 7326),
    (sym_comptime_expression, STATE 7017), (sym_transfer_expression, STATE 7017),
    (sym_not_operator, STATE 7969), (sym_boolean_operator, STATE 7969),
    (sym_binary_operator, STATE 7017), (sym_unary_operator, STATE 7017),
    (sym_comparison_operator, STATE 7969), (sym_lambda, STATE 7969),
    (sym_assignment, STATE 12425), (sym_augmented_assignment, STATE 12425),
    (sym_pattern_list, STATE 8578), (sym_yield, STATE 12425), (sym_attribute, STATE 6836),
    (sym_subscript, STATE 6838), (sym_call, STATE 6845), (sym_mlir_type, STATE 7017),
    (sym_list, STATE 7017), (sym_set, STATE 7017), (sym_tuple, STATE 7017),
    (sym_dictionary, STATE 7017), (sym_struct_literal, STATE 7017),
    (sym_list_comprehension, STATE 7017), (sym_dictionary_comprehension, STATE 7017),
    (sym_set_comprehension, STATE 7017), (sym_generator_expression, STATE 7017),
    (sym_parenthesized_expression, STATE 7017), (sym_conditional_expression, STATE 7969),
    (sym_concatenated_string, STATE 7017), (sym_string, STATE 6751), (sym_await, STATE 7017),
    (aux_sym_module_repeat1, STATE 927), (aux_sym_decorated_definition_repeat1, STATE 3670),
    (sym_identifier, ACTIONS 9), (anon_sym_import, ACTIONS 11), (anon_sym_from, ACTIONS 13),
    (anon_sym_LPAREN, ACTIONS 15), (anon_sym_STAR, ACTIONS 17), (anon_sym_print, ACTIONS 19),
    (anon_sym_comptime, ACTIONS 99), (anon_sym_assert, ACTIONS 23),
    (anon_sym___comptime_assert, ACTIONS 25), (anon_sym_return, ACTIONS 27),
    (anon_sym_del, ACTIONS 29), (anon_sym_raise, ACTIONS 31), (anon_sym_pass, ACTIONS 33),
    (anon_sym_break, ACTIONS 35), (anon_sym_continue, ACTIONS 37),
    (anon_sym___extension, ACTIONS 101), (anon_sym___mlir_region, ACTIONS 103),
    (anon_sym_if, ACTIONS 105), (anon_sym_match, ACTIONS 107), (anon_sym_async, ACTIONS 109),
    (anon_sym_for, ACTIONS 111), (anon_sym_while, ACTIONS 113), (anon_sym_try, ACTIONS 115),
    (anon_sym_with, ACTIONS 117), (anon_sym_def, ACTIONS 119), (anon_sym_fn, ACTIONS 119),
    (anon_sym_LBRACK, ACTIONS 59), (anon_sym_LBRACE, ACTIONS 61), (anon_sym_global, ACTIONS 63),
    (anon_sym_nonlocal, ACTIONS 65), (anon_sym_exec, ACTIONS 67), (anon_sym_type, ACTIONS 69),
    (anon_sym_class, ACTIONS 121), (anon_sym_struct, ACTIONS 121), (anon_sym_mut, ACTIONS 73),
    (anon_sym_out, ACTIONS 73), (anon_sym_trait, ACTIONS 123), (anon_sym_AT, ACTIONS 77),
    (anon_sym_DASH, ACTIONS 79), (anon_sym_PLUS, ACTIONS 79), (anon_sym_ref, ACTIONS 81),
    (anon_sym_var, ACTIONS 81), (anon_sym_not, ACTIONS 83), (anon_sym_TILDE, ACTIONS 79),
    (anon_sym_lambda, ACTIONS 85), (anon_sym_yield, ACTIONS 87), (sym_ellipsis, ACTIONS 89),
    (anon_sym___mlir_type, ACTIONS 91), (sym_integer, ACTIONS 93), (sym_float, ACTIONS 89),
    (anon_sym_await, ACTIONS 95), (sym_true, ACTIONS 93), (sym_false, ACTIONS 93),
    (sym_none, ACTIONS 93), (sym_comment, ACTIONS 3), (sym_line_continuation, ACTIONS 3),
    (sym__dedent, ACTIONS 125), (sym_string_start, ACTIONS 97)]"

definition parse_table_601 :: "(nat \<times> nat) list" where "parse_table_601 = [
    (sym__statement, STATE 927), (sym__simple_statements, STATE 927),
    (sym_import_statement, STATE 11814), (sym_future_import_statement, STATE 11814),
    (sym_import_from_statement, STATE 11814), (sym_print_statement, STATE 11814),
    (sym_assert_statement, STATE 11814), (sym_comptime_assert_statement, STATE 11814),
    (sym_expression_statement, STATE 11814), (sym_tuple_expression, STATE 12425),
    (sym_named_expression, STATE 7969), (sym__named_expression_lhs, STATE 12752),
    (sym_return_statement, STATE 11814), (sym_delete_statement, STATE 11814),
    (sym_raise_statement, STATE 11814), (sym_pass_statement, STATE 11814),
    (sym_break_statement, STATE 11814), (sym_continue_statement, STATE 11814),
    (sym_extension_definition, STATE 927), (sym_mlir_region, STATE 927),
    (sym_comptime_statement, STATE 927), (sym_if_statement, STATE 927),
    (sym_match_statement, STATE 927), (sym_for_statement, STATE 927),
    (sym_while_statement, STATE 927), (sym_try_statement, STATE 927),
    (sym_with_statement, STATE 927), (sym_function_definition, STATE 927),
    (sym_global_statement, STATE 11814), (sym_nonlocal_statement, STATE 11814),
    (sym_exec_statement, STATE 11814), (sym_type_alias_statement, STATE 11814),
    (sym_parameterized_alias_statement, STATE 11814), (sym_class_definition, STATE 927),
    (sym_trait_definition, STATE 927), (sym_decorated_definition, STATE 927),
    (sym_decorator, STATE 3670), (sym_block, STATE 5681), (sym_pattern, STATE 8086),
    (sym_tuple_pattern, STATE 8101), (sym_list_pattern, STATE 8101),
    (sym_list_splat_pattern, STATE 6819), (sym_as_pattern, STATE 7969),
    (sym_expression, STATE 9883), (sym_primary_expression, STATE 7326),
    (sym_comptime_expression, STATE 7017), (sym_transfer_expression, STATE 7017),
    (sym_not_operator, STATE 7969), (sym_boolean_operator, STATE 7969),
    (sym_binary_operator, STATE 7017), (sym_unary_operator, STATE 7017),
    (sym_comparison_operator, STATE 7969), (sym_lambda, STATE 7969),
    (sym_assignment, STATE 12425), (sym_augmented_assignment, STATE 12425),
    (sym_pattern_list, STATE 8578), (sym_yield, STATE 12425), (sym_attribute, STATE 6836),
    (sym_subscript, STATE 6838), (sym_call, STATE 6845), (sym_mlir_type, STATE 7017),
    (sym_list, STATE 7017), (sym_set, STATE 7017), (sym_tuple, STATE 7017),
    (sym_dictionary, STATE 7017), (sym_struct_literal, STATE 7017),
    (sym_list_comprehension, STATE 7017), (sym_dictionary_comprehension, STATE 7017),
    (sym_set_comprehension, STATE 7017), (sym_generator_expression, STATE 7017),
    (sym_parenthesized_expression, STATE 7017), (sym_conditional_expression, STATE 7969),
    (sym_concatenated_string, STATE 7017), (sym_string, STATE 6751), (sym_await, STATE 7017),
    (aux_sym_module_repeat1, STATE 927), (aux_sym_decorated_definition_repeat1, STATE 3670),
    (sym_identifier, ACTIONS 9), (anon_sym_import, ACTIONS 11), (anon_sym_from, ACTIONS 13),
    (anon_sym_LPAREN, ACTIONS 15), (anon_sym_STAR, ACTIONS 17), (anon_sym_print, ACTIONS 19),
    (anon_sym_comptime, ACTIONS 99), (anon_sym_assert, ACTIONS 23),
    (anon_sym___comptime_assert, ACTIONS 25), (anon_sym_return, ACTIONS 27),
    (anon_sym_del, ACTIONS 29), (anon_sym_raise, ACTIONS 31), (anon_sym_pass, ACTIONS 33),
    (anon_sym_break, ACTIONS 35), (anon_sym_continue, ACTIONS 37),
    (anon_sym___extension, ACTIONS 101), (anon_sym___mlir_region, ACTIONS 103),
    (anon_sym_if, ACTIONS 105), (anon_sym_match, ACTIONS 107), (anon_sym_async, ACTIONS 109),
    (anon_sym_for, ACTIONS 111), (anon_sym_while, ACTIONS 113), (anon_sym_try, ACTIONS 115),
    (anon_sym_with, ACTIONS 117), (anon_sym_def, ACTIONS 119), (anon_sym_fn, ACTIONS 119),
    (anon_sym_LBRACK, ACTIONS 59), (anon_sym_LBRACE, ACTIONS 61), (anon_sym_global, ACTIONS 63),
    (anon_sym_nonlocal, ACTIONS 65), (anon_sym_exec, ACTIONS 67), (anon_sym_type, ACTIONS 69),
    (anon_sym_class, ACTIONS 121), (anon_sym_struct, ACTIONS 121), (anon_sym_mut, ACTIONS 73),
    (anon_sym_out, ACTIONS 73), (anon_sym_trait, ACTIONS 123), (anon_sym_AT, ACTIONS 77),
    (anon_sym_DASH, ACTIONS 79), (anon_sym_PLUS, ACTIONS 79), (anon_sym_ref, ACTIONS 81),
    (anon_sym_var, ACTIONS 81), (anon_sym_not, ACTIONS 83), (anon_sym_TILDE, ACTIONS 79),
    (anon_sym_lambda, ACTIONS 85), (anon_sym_yield, ACTIONS 87), (sym_ellipsis, ACTIONS 89),
    (anon_sym___mlir_type, ACTIONS 91), (sym_integer, ACTIONS 93), (sym_float, ACTIONS 89),
    (anon_sym_await, ACTIONS 95), (sym_true, ACTIONS 93), (sym_false, ACTIONS 93),
    (sym_none, ACTIONS 93), (sym_comment, ACTIONS 3), (sym_line_continuation, ACTIONS 3),
    (sym__dedent, ACTIONS 125), (sym_string_start, ACTIONS 97)]"

definition parse_table_602 :: "(nat \<times> nat) list" where "parse_table_602 = [
    (sym__statement, STATE 927), (sym__simple_statements, STATE 927),
    (sym_import_statement, STATE 11814), (sym_future_import_statement, STATE 11814),
    (sym_import_from_statement, STATE 11814), (sym_print_statement, STATE 11814),
    (sym_assert_statement, STATE 11814), (sym_comptime_assert_statement, STATE 11814),
    (sym_expression_statement, STATE 11814), (sym_tuple_expression, STATE 12425),
    (sym_named_expression, STATE 7969), (sym__named_expression_lhs, STATE 12752),
    (sym_return_statement, STATE 11814), (sym_delete_statement, STATE 11814),
    (sym_raise_statement, STATE 11814), (sym_pass_statement, STATE 11814),
    (sym_break_statement, STATE 11814), (sym_continue_statement, STATE 11814),
    (sym_extension_definition, STATE 927), (sym_mlir_region, STATE 927),
    (sym_comptime_statement, STATE 927), (sym_if_statement, STATE 927),
    (sym_match_statement, STATE 927), (sym_for_statement, STATE 927),
    (sym_while_statement, STATE 927), (sym_try_statement, STATE 927),
    (sym_with_statement, STATE 927), (sym_function_definition, STATE 927),
    (sym_global_statement, STATE 11814), (sym_nonlocal_statement, STATE 11814),
    (sym_exec_statement, STATE 11814), (sym_type_alias_statement, STATE 11814),
    (sym_parameterized_alias_statement, STATE 11814), (sym_class_definition, STATE 927),
    (sym_trait_definition, STATE 927), (sym_decorated_definition, STATE 927),
    (sym_decorator, STATE 3670), (sym_block, STATE 5683), (sym_pattern, STATE 8086),
    (sym_tuple_pattern, STATE 8101), (sym_list_pattern, STATE 8101),
    (sym_list_splat_pattern, STATE 6819), (sym_as_pattern, STATE 7969),
    (sym_expression, STATE 9883), (sym_primary_expression, STATE 7326),
    (sym_comptime_expression, STATE 7017), (sym_transfer_expression, STATE 7017),
    (sym_not_operator, STATE 7969), (sym_boolean_operator, STATE 7969),
    (sym_binary_operator, STATE 7017), (sym_unary_operator, STATE 7017),
    (sym_comparison_operator, STATE 7969), (sym_lambda, STATE 7969),
    (sym_assignment, STATE 12425), (sym_augmented_assignment, STATE 12425),
    (sym_pattern_list, STATE 8578), (sym_yield, STATE 12425), (sym_attribute, STATE 6836),
    (sym_subscript, STATE 6838), (sym_call, STATE 6845), (sym_mlir_type, STATE 7017),
    (sym_list, STATE 7017), (sym_set, STATE 7017), (sym_tuple, STATE 7017),
    (sym_dictionary, STATE 7017), (sym_struct_literal, STATE 7017),
    (sym_list_comprehension, STATE 7017), (sym_dictionary_comprehension, STATE 7017),
    (sym_set_comprehension, STATE 7017), (sym_generator_expression, STATE 7017),
    (sym_parenthesized_expression, STATE 7017), (sym_conditional_expression, STATE 7969),
    (sym_concatenated_string, STATE 7017), (sym_string, STATE 6751), (sym_await, STATE 7017),
    (aux_sym_module_repeat1, STATE 927), (aux_sym_decorated_definition_repeat1, STATE 3670),
    (sym_identifier, ACTIONS 9), (anon_sym_import, ACTIONS 11), (anon_sym_from, ACTIONS 13),
    (anon_sym_LPAREN, ACTIONS 15), (anon_sym_STAR, ACTIONS 17), (anon_sym_print, ACTIONS 19),
    (anon_sym_comptime, ACTIONS 99), (anon_sym_assert, ACTIONS 23),
    (anon_sym___comptime_assert, ACTIONS 25), (anon_sym_return, ACTIONS 27),
    (anon_sym_del, ACTIONS 29), (anon_sym_raise, ACTIONS 31), (anon_sym_pass, ACTIONS 33),
    (anon_sym_break, ACTIONS 35), (anon_sym_continue, ACTIONS 37),
    (anon_sym___extension, ACTIONS 101), (anon_sym___mlir_region, ACTIONS 103),
    (anon_sym_if, ACTIONS 105), (anon_sym_match, ACTIONS 107), (anon_sym_async, ACTIONS 109),
    (anon_sym_for, ACTIONS 111), (anon_sym_while, ACTIONS 113), (anon_sym_try, ACTIONS 115),
    (anon_sym_with, ACTIONS 117), (anon_sym_def, ACTIONS 119), (anon_sym_fn, ACTIONS 119),
    (anon_sym_LBRACK, ACTIONS 59), (anon_sym_LBRACE, ACTIONS 61), (anon_sym_global, ACTIONS 63),
    (anon_sym_nonlocal, ACTIONS 65), (anon_sym_exec, ACTIONS 67), (anon_sym_type, ACTIONS 69),
    (anon_sym_class, ACTIONS 121), (anon_sym_struct, ACTIONS 121), (anon_sym_mut, ACTIONS 73),
    (anon_sym_out, ACTIONS 73), (anon_sym_trait, ACTIONS 123), (anon_sym_AT, ACTIONS 77),
    (anon_sym_DASH, ACTIONS 79), (anon_sym_PLUS, ACTIONS 79), (anon_sym_ref, ACTIONS 81),
    (anon_sym_var, ACTIONS 81), (anon_sym_not, ACTIONS 83), (anon_sym_TILDE, ACTIONS 79),
    (anon_sym_lambda, ACTIONS 85), (anon_sym_yield, ACTIONS 87), (sym_ellipsis, ACTIONS 89),
    (anon_sym___mlir_type, ACTIONS 91), (sym_integer, ACTIONS 93), (sym_float, ACTIONS 89),
    (anon_sym_await, ACTIONS 95), (sym_true, ACTIONS 93), (sym_false, ACTIONS 93),
    (sym_none, ACTIONS 93), (sym_comment, ACTIONS 3), (sym_line_continuation, ACTIONS 3),
    (sym__dedent, ACTIONS 125), (sym_string_start, ACTIONS 97)]"

definition parse_table_603 :: "(nat \<times> nat) list" where "parse_table_603 = [
    (sym__statement, STATE 927), (sym__simple_statements, STATE 927),
    (sym_import_statement, STATE 11814), (sym_future_import_statement, STATE 11814),
    (sym_import_from_statement, STATE 11814), (sym_print_statement, STATE 11814),
    (sym_assert_statement, STATE 11814), (sym_comptime_assert_statement, STATE 11814),
    (sym_expression_statement, STATE 11814), (sym_tuple_expression, STATE 12425),
    (sym_named_expression, STATE 7969), (sym__named_expression_lhs, STATE 12752),
    (sym_return_statement, STATE 11814), (sym_delete_statement, STATE 11814),
    (sym_raise_statement, STATE 11814), (sym_pass_statement, STATE 11814),
    (sym_break_statement, STATE 11814), (sym_continue_statement, STATE 11814),
    (sym_extension_definition, STATE 927), (sym_mlir_region, STATE 927),
    (sym_comptime_statement, STATE 927), (sym_if_statement, STATE 927),
    (sym_match_statement, STATE 927), (sym_for_statement, STATE 927),
    (sym_while_statement, STATE 927), (sym_try_statement, STATE 927),
    (sym_with_statement, STATE 927), (sym_function_definition, STATE 927),
    (sym_global_statement, STATE 11814), (sym_nonlocal_statement, STATE 11814),
    (sym_exec_statement, STATE 11814), (sym_type_alias_statement, STATE 11814),
    (sym_parameterized_alias_statement, STATE 11814), (sym_class_definition, STATE 927),
    (sym_trait_definition, STATE 927), (sym_decorated_definition, STATE 927),
    (sym_decorator, STATE 3670), (sym_block, STATE 5686), (sym_pattern, STATE 8086),
    (sym_tuple_pattern, STATE 8101), (sym_list_pattern, STATE 8101),
    (sym_list_splat_pattern, STATE 6819), (sym_as_pattern, STATE 7969),
    (sym_expression, STATE 9883), (sym_primary_expression, STATE 7326),
    (sym_comptime_expression, STATE 7017), (sym_transfer_expression, STATE 7017),
    (sym_not_operator, STATE 7969), (sym_boolean_operator, STATE 7969),
    (sym_binary_operator, STATE 7017), (sym_unary_operator, STATE 7017),
    (sym_comparison_operator, STATE 7969), (sym_lambda, STATE 7969),
    (sym_assignment, STATE 12425), (sym_augmented_assignment, STATE 12425),
    (sym_pattern_list, STATE 8578), (sym_yield, STATE 12425), (sym_attribute, STATE 6836),
    (sym_subscript, STATE 6838), (sym_call, STATE 6845), (sym_mlir_type, STATE 7017),
    (sym_list, STATE 7017), (sym_set, STATE 7017), (sym_tuple, STATE 7017),
    (sym_dictionary, STATE 7017), (sym_struct_literal, STATE 7017),
    (sym_list_comprehension, STATE 7017), (sym_dictionary_comprehension, STATE 7017),
    (sym_set_comprehension, STATE 7017), (sym_generator_expression, STATE 7017),
    (sym_parenthesized_expression, STATE 7017), (sym_conditional_expression, STATE 7969),
    (sym_concatenated_string, STATE 7017), (sym_string, STATE 6751), (sym_await, STATE 7017),
    (aux_sym_module_repeat1, STATE 927), (aux_sym_decorated_definition_repeat1, STATE 3670),
    (sym_identifier, ACTIONS 9), (anon_sym_import, ACTIONS 11), (anon_sym_from, ACTIONS 13),
    (anon_sym_LPAREN, ACTIONS 15), (anon_sym_STAR, ACTIONS 17), (anon_sym_print, ACTIONS 19),
    (anon_sym_comptime, ACTIONS 99), (anon_sym_assert, ACTIONS 23),
    (anon_sym___comptime_assert, ACTIONS 25), (anon_sym_return, ACTIONS 27),
    (anon_sym_del, ACTIONS 29), (anon_sym_raise, ACTIONS 31), (anon_sym_pass, ACTIONS 33),
    (anon_sym_break, ACTIONS 35), (anon_sym_continue, ACTIONS 37),
    (anon_sym___extension, ACTIONS 101), (anon_sym___mlir_region, ACTIONS 103),
    (anon_sym_if, ACTIONS 105), (anon_sym_match, ACTIONS 107), (anon_sym_async, ACTIONS 109),
    (anon_sym_for, ACTIONS 111), (anon_sym_while, ACTIONS 113), (anon_sym_try, ACTIONS 115),
    (anon_sym_with, ACTIONS 117), (anon_sym_def, ACTIONS 119), (anon_sym_fn, ACTIONS 119),
    (anon_sym_LBRACK, ACTIONS 59), (anon_sym_LBRACE, ACTIONS 61), (anon_sym_global, ACTIONS 63),
    (anon_sym_nonlocal, ACTIONS 65), (anon_sym_exec, ACTIONS 67), (anon_sym_type, ACTIONS 69),
    (anon_sym_class, ACTIONS 121), (anon_sym_struct, ACTIONS 121), (anon_sym_mut, ACTIONS 73),
    (anon_sym_out, ACTIONS 73), (anon_sym_trait, ACTIONS 123), (anon_sym_AT, ACTIONS 77),
    (anon_sym_DASH, ACTIONS 79), (anon_sym_PLUS, ACTIONS 79), (anon_sym_ref, ACTIONS 81),
    (anon_sym_var, ACTIONS 81), (anon_sym_not, ACTIONS 83), (anon_sym_TILDE, ACTIONS 79),
    (anon_sym_lambda, ACTIONS 85), (anon_sym_yield, ACTIONS 87), (sym_ellipsis, ACTIONS 89),
    (anon_sym___mlir_type, ACTIONS 91), (sym_integer, ACTIONS 93), (sym_float, ACTIONS 89),
    (anon_sym_await, ACTIONS 95), (sym_true, ACTIONS 93), (sym_false, ACTIONS 93),
    (sym_none, ACTIONS 93), (sym_comment, ACTIONS 3), (sym_line_continuation, ACTIONS 3),
    (sym__dedent, ACTIONS 125), (sym_string_start, ACTIONS 97)]"

definition parse_table_604 :: "(nat \<times> nat) list" where "parse_table_604 = [
    (sym__statement, STATE 927), (sym__simple_statements, STATE 927),
    (sym_import_statement, STATE 11814), (sym_future_import_statement, STATE 11814),
    (sym_import_from_statement, STATE 11814), (sym_print_statement, STATE 11814),
    (sym_assert_statement, STATE 11814), (sym_comptime_assert_statement, STATE 11814),
    (sym_expression_statement, STATE 11814), (sym_tuple_expression, STATE 12425),
    (sym_named_expression, STATE 7969), (sym__named_expression_lhs, STATE 12752),
    (sym_return_statement, STATE 11814), (sym_delete_statement, STATE 11814),
    (sym_raise_statement, STATE 11814), (sym_pass_statement, STATE 11814),
    (sym_break_statement, STATE 11814), (sym_continue_statement, STATE 11814),
    (sym_extension_definition, STATE 927), (sym_mlir_region, STATE 927),
    (sym_comptime_statement, STATE 927), (sym_if_statement, STATE 927),
    (sym_match_statement, STATE 927), (sym_for_statement, STATE 927),
    (sym_while_statement, STATE 927), (sym_try_statement, STATE 927),
    (sym_with_statement, STATE 927), (sym_function_definition, STATE 927),
    (sym_global_statement, STATE 11814), (sym_nonlocal_statement, STATE 11814),
    (sym_exec_statement, STATE 11814), (sym_type_alias_statement, STATE 11814),
    (sym_parameterized_alias_statement, STATE 11814), (sym_class_definition, STATE 927),
    (sym_trait_definition, STATE 927), (sym_decorated_definition, STATE 927),
    (sym_decorator, STATE 3670), (sym_block, STATE 5690), (sym_pattern, STATE 8086),
    (sym_tuple_pattern, STATE 8101), (sym_list_pattern, STATE 8101),
    (sym_list_splat_pattern, STATE 6819), (sym_as_pattern, STATE 7969),
    (sym_expression, STATE 9883), (sym_primary_expression, STATE 7326),
    (sym_comptime_expression, STATE 7017), (sym_transfer_expression, STATE 7017),
    (sym_not_operator, STATE 7969), (sym_boolean_operator, STATE 7969),
    (sym_binary_operator, STATE 7017), (sym_unary_operator, STATE 7017),
    (sym_comparison_operator, STATE 7969), (sym_lambda, STATE 7969),
    (sym_assignment, STATE 12425), (sym_augmented_assignment, STATE 12425),
    (sym_pattern_list, STATE 8578), (sym_yield, STATE 12425), (sym_attribute, STATE 6836),
    (sym_subscript, STATE 6838), (sym_call, STATE 6845), (sym_mlir_type, STATE 7017),
    (sym_list, STATE 7017), (sym_set, STATE 7017), (sym_tuple, STATE 7017),
    (sym_dictionary, STATE 7017), (sym_struct_literal, STATE 7017),
    (sym_list_comprehension, STATE 7017), (sym_dictionary_comprehension, STATE 7017),
    (sym_set_comprehension, STATE 7017), (sym_generator_expression, STATE 7017),
    (sym_parenthesized_expression, STATE 7017), (sym_conditional_expression, STATE 7969),
    (sym_concatenated_string, STATE 7017), (sym_string, STATE 6751), (sym_await, STATE 7017),
    (aux_sym_module_repeat1, STATE 927), (aux_sym_decorated_definition_repeat1, STATE 3670),
    (sym_identifier, ACTIONS 9), (anon_sym_import, ACTIONS 11), (anon_sym_from, ACTIONS 13),
    (anon_sym_LPAREN, ACTIONS 15), (anon_sym_STAR, ACTIONS 17), (anon_sym_print, ACTIONS 19),
    (anon_sym_comptime, ACTIONS 99), (anon_sym_assert, ACTIONS 23),
    (anon_sym___comptime_assert, ACTIONS 25), (anon_sym_return, ACTIONS 27),
    (anon_sym_del, ACTIONS 29), (anon_sym_raise, ACTIONS 31), (anon_sym_pass, ACTIONS 33),
    (anon_sym_break, ACTIONS 35), (anon_sym_continue, ACTIONS 37),
    (anon_sym___extension, ACTIONS 101), (anon_sym___mlir_region, ACTIONS 103),
    (anon_sym_if, ACTIONS 105), (anon_sym_match, ACTIONS 107), (anon_sym_async, ACTIONS 109),
    (anon_sym_for, ACTIONS 111), (anon_sym_while, ACTIONS 113), (anon_sym_try, ACTIONS 115),
    (anon_sym_with, ACTIONS 117), (anon_sym_def, ACTIONS 119), (anon_sym_fn, ACTIONS 119),
    (anon_sym_LBRACK, ACTIONS 59), (anon_sym_LBRACE, ACTIONS 61), (anon_sym_global, ACTIONS 63),
    (anon_sym_nonlocal, ACTIONS 65), (anon_sym_exec, ACTIONS 67), (anon_sym_type, ACTIONS 69),
    (anon_sym_class, ACTIONS 121), (anon_sym_struct, ACTIONS 121), (anon_sym_mut, ACTIONS 73),
    (anon_sym_out, ACTIONS 73), (anon_sym_trait, ACTIONS 123), (anon_sym_AT, ACTIONS 77),
    (anon_sym_DASH, ACTIONS 79), (anon_sym_PLUS, ACTIONS 79), (anon_sym_ref, ACTIONS 81),
    (anon_sym_var, ACTIONS 81), (anon_sym_not, ACTIONS 83), (anon_sym_TILDE, ACTIONS 79),
    (anon_sym_lambda, ACTIONS 85), (anon_sym_yield, ACTIONS 87), (sym_ellipsis, ACTIONS 89),
    (anon_sym___mlir_type, ACTIONS 91), (sym_integer, ACTIONS 93), (sym_float, ACTIONS 89),
    (anon_sym_await, ACTIONS 95), (sym_true, ACTIONS 93), (sym_false, ACTIONS 93),
    (sym_none, ACTIONS 93), (sym_comment, ACTIONS 3), (sym_line_continuation, ACTIONS 3),
    (sym__dedent, ACTIONS 125), (sym_string_start, ACTIONS 97)]"

definition parse_table_605 :: "(nat \<times> nat) list" where "parse_table_605 = [
    (sym__statement, STATE 927), (sym__simple_statements, STATE 927),
    (sym_import_statement, STATE 11814), (sym_future_import_statement, STATE 11814),
    (sym_import_from_statement, STATE 11814), (sym_print_statement, STATE 11814),
    (sym_assert_statement, STATE 11814), (sym_comptime_assert_statement, STATE 11814),
    (sym_expression_statement, STATE 11814), (sym_tuple_expression, STATE 12425),
    (sym_named_expression, STATE 7969), (sym__named_expression_lhs, STATE 12752),
    (sym_return_statement, STATE 11814), (sym_delete_statement, STATE 11814),
    (sym_raise_statement, STATE 11814), (sym_pass_statement, STATE 11814),
    (sym_break_statement, STATE 11814), (sym_continue_statement, STATE 11814),
    (sym_extension_definition, STATE 927), (sym_mlir_region, STATE 927),
    (sym_comptime_statement, STATE 927), (sym_if_statement, STATE 927),
    (sym_match_statement, STATE 927), (sym_for_statement, STATE 927),
    (sym_while_statement, STATE 927), (sym_try_statement, STATE 927),
    (sym_with_statement, STATE 927), (sym_function_definition, STATE 927),
    (sym_global_statement, STATE 11814), (sym_nonlocal_statement, STATE 11814),
    (sym_exec_statement, STATE 11814), (sym_type_alias_statement, STATE 11814),
    (sym_parameterized_alias_statement, STATE 11814), (sym_class_definition, STATE 927),
    (sym_trait_definition, STATE 927), (sym_decorated_definition, STATE 927),
    (sym_decorator, STATE 3670), (sym_block, STATE 5693), (sym_pattern, STATE 8086),
    (sym_tuple_pattern, STATE 8101), (sym_list_pattern, STATE 8101),
    (sym_list_splat_pattern, STATE 6819), (sym_as_pattern, STATE 7969),
    (sym_expression, STATE 9883), (sym_primary_expression, STATE 7326),
    (sym_comptime_expression, STATE 7017), (sym_transfer_expression, STATE 7017),
    (sym_not_operator, STATE 7969), (sym_boolean_operator, STATE 7969),
    (sym_binary_operator, STATE 7017), (sym_unary_operator, STATE 7017),
    (sym_comparison_operator, STATE 7969), (sym_lambda, STATE 7969),
    (sym_assignment, STATE 12425), (sym_augmented_assignment, STATE 12425),
    (sym_pattern_list, STATE 8578), (sym_yield, STATE 12425), (sym_attribute, STATE 6836),
    (sym_subscript, STATE 6838), (sym_call, STATE 6845), (sym_mlir_type, STATE 7017),
    (sym_list, STATE 7017), (sym_set, STATE 7017), (sym_tuple, STATE 7017),
    (sym_dictionary, STATE 7017), (sym_struct_literal, STATE 7017),
    (sym_list_comprehension, STATE 7017), (sym_dictionary_comprehension, STATE 7017),
    (sym_set_comprehension, STATE 7017), (sym_generator_expression, STATE 7017),
    (sym_parenthesized_expression, STATE 7017), (sym_conditional_expression, STATE 7969),
    (sym_concatenated_string, STATE 7017), (sym_string, STATE 6751), (sym_await, STATE 7017),
    (aux_sym_module_repeat1, STATE 927), (aux_sym_decorated_definition_repeat1, STATE 3670),
    (sym_identifier, ACTIONS 9), (anon_sym_import, ACTIONS 11), (anon_sym_from, ACTIONS 13),
    (anon_sym_LPAREN, ACTIONS 15), (anon_sym_STAR, ACTIONS 17), (anon_sym_print, ACTIONS 19),
    (anon_sym_comptime, ACTIONS 99), (anon_sym_assert, ACTIONS 23),
    (anon_sym___comptime_assert, ACTIONS 25), (anon_sym_return, ACTIONS 27),
    (anon_sym_del, ACTIONS 29), (anon_sym_raise, ACTIONS 31), (anon_sym_pass, ACTIONS 33),
    (anon_sym_break, ACTIONS 35), (anon_sym_continue, ACTIONS 37),
    (anon_sym___extension, ACTIONS 101), (anon_sym___mlir_region, ACTIONS 103),
    (anon_sym_if, ACTIONS 105), (anon_sym_match, ACTIONS 107), (anon_sym_async, ACTIONS 109),
    (anon_sym_for, ACTIONS 111), (anon_sym_while, ACTIONS 113), (anon_sym_try, ACTIONS 115),
    (anon_sym_with, ACTIONS 117), (anon_sym_def, ACTIONS 119), (anon_sym_fn, ACTIONS 119),
    (anon_sym_LBRACK, ACTIONS 59), (anon_sym_LBRACE, ACTIONS 61), (anon_sym_global, ACTIONS 63),
    (anon_sym_nonlocal, ACTIONS 65), (anon_sym_exec, ACTIONS 67), (anon_sym_type, ACTIONS 69),
    (anon_sym_class, ACTIONS 121), (anon_sym_struct, ACTIONS 121), (anon_sym_mut, ACTIONS 73),
    (anon_sym_out, ACTIONS 73), (anon_sym_trait, ACTIONS 123), (anon_sym_AT, ACTIONS 77),
    (anon_sym_DASH, ACTIONS 79), (anon_sym_PLUS, ACTIONS 79), (anon_sym_ref, ACTIONS 81),
    (anon_sym_var, ACTIONS 81), (anon_sym_not, ACTIONS 83), (anon_sym_TILDE, ACTIONS 79),
    (anon_sym_lambda, ACTIONS 85), (anon_sym_yield, ACTIONS 87), (sym_ellipsis, ACTIONS 89),
    (anon_sym___mlir_type, ACTIONS 91), (sym_integer, ACTIONS 93), (sym_float, ACTIONS 89),
    (anon_sym_await, ACTIONS 95), (sym_true, ACTIONS 93), (sym_false, ACTIONS 93),
    (sym_none, ACTIONS 93), (sym_comment, ACTIONS 3), (sym_line_continuation, ACTIONS 3),
    (sym__dedent, ACTIONS 125), (sym_string_start, ACTIONS 97)]"

definition parse_table_606 :: "(nat \<times> nat) list" where "parse_table_606 = [
    (sym__statement, STATE 927), (sym__simple_statements, STATE 927),
    (sym_import_statement, STATE 11814), (sym_future_import_statement, STATE 11814),
    (sym_import_from_statement, STATE 11814), (sym_print_statement, STATE 11814),
    (sym_assert_statement, STATE 11814), (sym_comptime_assert_statement, STATE 11814),
    (sym_expression_statement, STATE 11814), (sym_tuple_expression, STATE 12425),
    (sym_named_expression, STATE 7969), (sym__named_expression_lhs, STATE 12752),
    (sym_return_statement, STATE 11814), (sym_delete_statement, STATE 11814),
    (sym_raise_statement, STATE 11814), (sym_pass_statement, STATE 11814),
    (sym_break_statement, STATE 11814), (sym_continue_statement, STATE 11814),
    (sym_extension_definition, STATE 927), (sym_mlir_region, STATE 927),
    (sym_comptime_statement, STATE 927), (sym_if_statement, STATE 927),
    (sym_match_statement, STATE 927), (sym_for_statement, STATE 927),
    (sym_while_statement, STATE 927), (sym_try_statement, STATE 927),
    (sym_with_statement, STATE 927), (sym_function_definition, STATE 927),
    (sym_global_statement, STATE 11814), (sym_nonlocal_statement, STATE 11814),
    (sym_exec_statement, STATE 11814), (sym_type_alias_statement, STATE 11814),
    (sym_parameterized_alias_statement, STATE 11814), (sym_class_definition, STATE 927),
    (sym_trait_definition, STATE 927), (sym_decorated_definition, STATE 927),
    (sym_decorator, STATE 3670), (sym_block, STATE 5698), (sym_pattern, STATE 8086),
    (sym_tuple_pattern, STATE 8101), (sym_list_pattern, STATE 8101),
    (sym_list_splat_pattern, STATE 6819), (sym_as_pattern, STATE 7969),
    (sym_expression, STATE 9883), (sym_primary_expression, STATE 7326),
    (sym_comptime_expression, STATE 7017), (sym_transfer_expression, STATE 7017),
    (sym_not_operator, STATE 7969), (sym_boolean_operator, STATE 7969),
    (sym_binary_operator, STATE 7017), (sym_unary_operator, STATE 7017),
    (sym_comparison_operator, STATE 7969), (sym_lambda, STATE 7969),
    (sym_assignment, STATE 12425), (sym_augmented_assignment, STATE 12425),
    (sym_pattern_list, STATE 8578), (sym_yield, STATE 12425), (sym_attribute, STATE 6836),
    (sym_subscript, STATE 6838), (sym_call, STATE 6845), (sym_mlir_type, STATE 7017),
    (sym_list, STATE 7017), (sym_set, STATE 7017), (sym_tuple, STATE 7017),
    (sym_dictionary, STATE 7017), (sym_struct_literal, STATE 7017),
    (sym_list_comprehension, STATE 7017), (sym_dictionary_comprehension, STATE 7017),
    (sym_set_comprehension, STATE 7017), (sym_generator_expression, STATE 7017),
    (sym_parenthesized_expression, STATE 7017), (sym_conditional_expression, STATE 7969),
    (sym_concatenated_string, STATE 7017), (sym_string, STATE 6751), (sym_await, STATE 7017),
    (aux_sym_module_repeat1, STATE 927), (aux_sym_decorated_definition_repeat1, STATE 3670),
    (sym_identifier, ACTIONS 9), (anon_sym_import, ACTIONS 11), (anon_sym_from, ACTIONS 13),
    (anon_sym_LPAREN, ACTIONS 15), (anon_sym_STAR, ACTIONS 17), (anon_sym_print, ACTIONS 19),
    (anon_sym_comptime, ACTIONS 99), (anon_sym_assert, ACTIONS 23),
    (anon_sym___comptime_assert, ACTIONS 25), (anon_sym_return, ACTIONS 27),
    (anon_sym_del, ACTIONS 29), (anon_sym_raise, ACTIONS 31), (anon_sym_pass, ACTIONS 33),
    (anon_sym_break, ACTIONS 35), (anon_sym_continue, ACTIONS 37),
    (anon_sym___extension, ACTIONS 101), (anon_sym___mlir_region, ACTIONS 103),
    (anon_sym_if, ACTIONS 105), (anon_sym_match, ACTIONS 107), (anon_sym_async, ACTIONS 109),
    (anon_sym_for, ACTIONS 111), (anon_sym_while, ACTIONS 113), (anon_sym_try, ACTIONS 115),
    (anon_sym_with, ACTIONS 117), (anon_sym_def, ACTIONS 119), (anon_sym_fn, ACTIONS 119),
    (anon_sym_LBRACK, ACTIONS 59), (anon_sym_LBRACE, ACTIONS 61), (anon_sym_global, ACTIONS 63),
    (anon_sym_nonlocal, ACTIONS 65), (anon_sym_exec, ACTIONS 67), (anon_sym_type, ACTIONS 69),
    (anon_sym_class, ACTIONS 121), (anon_sym_struct, ACTIONS 121), (anon_sym_mut, ACTIONS 73),
    (anon_sym_out, ACTIONS 73), (anon_sym_trait, ACTIONS 123), (anon_sym_AT, ACTIONS 77),
    (anon_sym_DASH, ACTIONS 79), (anon_sym_PLUS, ACTIONS 79), (anon_sym_ref, ACTIONS 81),
    (anon_sym_var, ACTIONS 81), (anon_sym_not, ACTIONS 83), (anon_sym_TILDE, ACTIONS 79),
    (anon_sym_lambda, ACTIONS 85), (anon_sym_yield, ACTIONS 87), (sym_ellipsis, ACTIONS 89),
    (anon_sym___mlir_type, ACTIONS 91), (sym_integer, ACTIONS 93), (sym_float, ACTIONS 89),
    (anon_sym_await, ACTIONS 95), (sym_true, ACTIONS 93), (sym_false, ACTIONS 93),
    (sym_none, ACTIONS 93), (sym_comment, ACTIONS 3), (sym_line_continuation, ACTIONS 3),
    (sym__dedent, ACTIONS 125), (sym_string_start, ACTIONS 97)]"

definition parse_table_607 :: "(nat \<times> nat) list" where "parse_table_607 = [
    (sym__statement, STATE 927), (sym__simple_statements, STATE 927),
    (sym_import_statement, STATE 11814), (sym_future_import_statement, STATE 11814),
    (sym_import_from_statement, STATE 11814), (sym_print_statement, STATE 11814),
    (sym_assert_statement, STATE 11814), (sym_comptime_assert_statement, STATE 11814),
    (sym_expression_statement, STATE 11814), (sym_tuple_expression, STATE 12425),
    (sym_named_expression, STATE 7969), (sym__named_expression_lhs, STATE 12752),
    (sym_return_statement, STATE 11814), (sym_delete_statement, STATE 11814),
    (sym_raise_statement, STATE 11814), (sym_pass_statement, STATE 11814),
    (sym_break_statement, STATE 11814), (sym_continue_statement, STATE 11814),
    (sym_extension_definition, STATE 927), (sym_mlir_region, STATE 927),
    (sym_comptime_statement, STATE 927), (sym_if_statement, STATE 927),
    (sym_match_statement, STATE 927), (sym_for_statement, STATE 927),
    (sym_while_statement, STATE 927), (sym_try_statement, STATE 927),
    (sym_with_statement, STATE 927), (sym_function_definition, STATE 927),
    (sym_global_statement, STATE 11814), (sym_nonlocal_statement, STATE 11814),
    (sym_exec_statement, STATE 11814), (sym_type_alias_statement, STATE 11814),
    (sym_parameterized_alias_statement, STATE 11814), (sym_class_definition, STATE 927),
    (sym_trait_definition, STATE 927), (sym_decorated_definition, STATE 927),
    (sym_decorator, STATE 3670), (sym_block, STATE 5704), (sym_pattern, STATE 8086),
    (sym_tuple_pattern, STATE 8101), (sym_list_pattern, STATE 8101),
    (sym_list_splat_pattern, STATE 6819), (sym_as_pattern, STATE 7969),
    (sym_expression, STATE 9883), (sym_primary_expression, STATE 7326),
    (sym_comptime_expression, STATE 7017), (sym_transfer_expression, STATE 7017),
    (sym_not_operator, STATE 7969), (sym_boolean_operator, STATE 7969),
    (sym_binary_operator, STATE 7017), (sym_unary_operator, STATE 7017),
    (sym_comparison_operator, STATE 7969), (sym_lambda, STATE 7969),
    (sym_assignment, STATE 12425), (sym_augmented_assignment, STATE 12425),
    (sym_pattern_list, STATE 8578), (sym_yield, STATE 12425), (sym_attribute, STATE 6836),
    (sym_subscript, STATE 6838), (sym_call, STATE 6845), (sym_mlir_type, STATE 7017),
    (sym_list, STATE 7017), (sym_set, STATE 7017), (sym_tuple, STATE 7017),
    (sym_dictionary, STATE 7017), (sym_struct_literal, STATE 7017),
    (sym_list_comprehension, STATE 7017), (sym_dictionary_comprehension, STATE 7017),
    (sym_set_comprehension, STATE 7017), (sym_generator_expression, STATE 7017),
    (sym_parenthesized_expression, STATE 7017), (sym_conditional_expression, STATE 7969),
    (sym_concatenated_string, STATE 7017), (sym_string, STATE 6751), (sym_await, STATE 7017),
    (aux_sym_module_repeat1, STATE 927), (aux_sym_decorated_definition_repeat1, STATE 3670),
    (sym_identifier, ACTIONS 9), (anon_sym_import, ACTIONS 11), (anon_sym_from, ACTIONS 13),
    (anon_sym_LPAREN, ACTIONS 15), (anon_sym_STAR, ACTIONS 17), (anon_sym_print, ACTIONS 19),
    (anon_sym_comptime, ACTIONS 99), (anon_sym_assert, ACTIONS 23),
    (anon_sym___comptime_assert, ACTIONS 25), (anon_sym_return, ACTIONS 27),
    (anon_sym_del, ACTIONS 29), (anon_sym_raise, ACTIONS 31), (anon_sym_pass, ACTIONS 33),
    (anon_sym_break, ACTIONS 35), (anon_sym_continue, ACTIONS 37),
    (anon_sym___extension, ACTIONS 101), (anon_sym___mlir_region, ACTIONS 103),
    (anon_sym_if, ACTIONS 105), (anon_sym_match, ACTIONS 107), (anon_sym_async, ACTIONS 109),
    (anon_sym_for, ACTIONS 111), (anon_sym_while, ACTIONS 113), (anon_sym_try, ACTIONS 115),
    (anon_sym_with, ACTIONS 117), (anon_sym_def, ACTIONS 119), (anon_sym_fn, ACTIONS 119),
    (anon_sym_LBRACK, ACTIONS 59), (anon_sym_LBRACE, ACTIONS 61), (anon_sym_global, ACTIONS 63),
    (anon_sym_nonlocal, ACTIONS 65), (anon_sym_exec, ACTIONS 67), (anon_sym_type, ACTIONS 69),
    (anon_sym_class, ACTIONS 121), (anon_sym_struct, ACTIONS 121), (anon_sym_mut, ACTIONS 73),
    (anon_sym_out, ACTIONS 73), (anon_sym_trait, ACTIONS 123), (anon_sym_AT, ACTIONS 77),
    (anon_sym_DASH, ACTIONS 79), (anon_sym_PLUS, ACTIONS 79), (anon_sym_ref, ACTIONS 81),
    (anon_sym_var, ACTIONS 81), (anon_sym_not, ACTIONS 83), (anon_sym_TILDE, ACTIONS 79),
    (anon_sym_lambda, ACTIONS 85), (anon_sym_yield, ACTIONS 87), (sym_ellipsis, ACTIONS 89),
    (anon_sym___mlir_type, ACTIONS 91), (sym_integer, ACTIONS 93), (sym_float, ACTIONS 89),
    (anon_sym_await, ACTIONS 95), (sym_true, ACTIONS 93), (sym_false, ACTIONS 93),
    (sym_none, ACTIONS 93), (sym_comment, ACTIONS 3), (sym_line_continuation, ACTIONS 3),
    (sym__dedent, ACTIONS 125), (sym_string_start, ACTIONS 97)]"

definition parse_table_608 :: "(nat \<times> nat) list" where "parse_table_608 = [
    (sym__statement, STATE 927), (sym__simple_statements, STATE 927),
    (sym_import_statement, STATE 11814), (sym_future_import_statement, STATE 11814),
    (sym_import_from_statement, STATE 11814), (sym_print_statement, STATE 11814),
    (sym_assert_statement, STATE 11814), (sym_comptime_assert_statement, STATE 11814),
    (sym_expression_statement, STATE 11814), (sym_tuple_expression, STATE 12425),
    (sym_named_expression, STATE 7969), (sym__named_expression_lhs, STATE 12752),
    (sym_return_statement, STATE 11814), (sym_delete_statement, STATE 11814),
    (sym_raise_statement, STATE 11814), (sym_pass_statement, STATE 11814),
    (sym_break_statement, STATE 11814), (sym_continue_statement, STATE 11814),
    (sym_extension_definition, STATE 927), (sym_mlir_region, STATE 927),
    (sym_comptime_statement, STATE 927), (sym_if_statement, STATE 927),
    (sym_match_statement, STATE 927), (sym_for_statement, STATE 927),
    (sym_while_statement, STATE 927), (sym_try_statement, STATE 927),
    (sym_with_statement, STATE 927), (sym_function_definition, STATE 927),
    (sym_global_statement, STATE 11814), (sym_nonlocal_statement, STATE 11814),
    (sym_exec_statement, STATE 11814), (sym_type_alias_statement, STATE 11814),
    (sym_parameterized_alias_statement, STATE 11814), (sym_class_definition, STATE 927),
    (sym_trait_definition, STATE 927), (sym_decorated_definition, STATE 927),
    (sym_decorator, STATE 3670), (sym_block, STATE 5709), (sym_pattern, STATE 8086),
    (sym_tuple_pattern, STATE 8101), (sym_list_pattern, STATE 8101),
    (sym_list_splat_pattern, STATE 6819), (sym_as_pattern, STATE 7969),
    (sym_expression, STATE 9883), (sym_primary_expression, STATE 7326),
    (sym_comptime_expression, STATE 7017), (sym_transfer_expression, STATE 7017),
    (sym_not_operator, STATE 7969), (sym_boolean_operator, STATE 7969),
    (sym_binary_operator, STATE 7017), (sym_unary_operator, STATE 7017),
    (sym_comparison_operator, STATE 7969), (sym_lambda, STATE 7969),
    (sym_assignment, STATE 12425), (sym_augmented_assignment, STATE 12425),
    (sym_pattern_list, STATE 8578), (sym_yield, STATE 12425), (sym_attribute, STATE 6836),
    (sym_subscript, STATE 6838), (sym_call, STATE 6845), (sym_mlir_type, STATE 7017),
    (sym_list, STATE 7017), (sym_set, STATE 7017), (sym_tuple, STATE 7017),
    (sym_dictionary, STATE 7017), (sym_struct_literal, STATE 7017),
    (sym_list_comprehension, STATE 7017), (sym_dictionary_comprehension, STATE 7017),
    (sym_set_comprehension, STATE 7017), (sym_generator_expression, STATE 7017),
    (sym_parenthesized_expression, STATE 7017), (sym_conditional_expression, STATE 7969),
    (sym_concatenated_string, STATE 7017), (sym_string, STATE 6751), (sym_await, STATE 7017),
    (aux_sym_module_repeat1, STATE 927), (aux_sym_decorated_definition_repeat1, STATE 3670),
    (sym_identifier, ACTIONS 9), (anon_sym_import, ACTIONS 11), (anon_sym_from, ACTIONS 13),
    (anon_sym_LPAREN, ACTIONS 15), (anon_sym_STAR, ACTIONS 17), (anon_sym_print, ACTIONS 19),
    (anon_sym_comptime, ACTIONS 99), (anon_sym_assert, ACTIONS 23),
    (anon_sym___comptime_assert, ACTIONS 25), (anon_sym_return, ACTIONS 27),
    (anon_sym_del, ACTIONS 29), (anon_sym_raise, ACTIONS 31), (anon_sym_pass, ACTIONS 33),
    (anon_sym_break, ACTIONS 35), (anon_sym_continue, ACTIONS 37),
    (anon_sym___extension, ACTIONS 101), (anon_sym___mlir_region, ACTIONS 103),
    (anon_sym_if, ACTIONS 105), (anon_sym_match, ACTIONS 107), (anon_sym_async, ACTIONS 109),
    (anon_sym_for, ACTIONS 111), (anon_sym_while, ACTIONS 113), (anon_sym_try, ACTIONS 115),
    (anon_sym_with, ACTIONS 117), (anon_sym_def, ACTIONS 119), (anon_sym_fn, ACTIONS 119),
    (anon_sym_LBRACK, ACTIONS 59), (anon_sym_LBRACE, ACTIONS 61), (anon_sym_global, ACTIONS 63),
    (anon_sym_nonlocal, ACTIONS 65), (anon_sym_exec, ACTIONS 67), (anon_sym_type, ACTIONS 69),
    (anon_sym_class, ACTIONS 121), (anon_sym_struct, ACTIONS 121), (anon_sym_mut, ACTIONS 73),
    (anon_sym_out, ACTIONS 73), (anon_sym_trait, ACTIONS 123), (anon_sym_AT, ACTIONS 77),
    (anon_sym_DASH, ACTIONS 79), (anon_sym_PLUS, ACTIONS 79), (anon_sym_ref, ACTIONS 81),
    (anon_sym_var, ACTIONS 81), (anon_sym_not, ACTIONS 83), (anon_sym_TILDE, ACTIONS 79),
    (anon_sym_lambda, ACTIONS 85), (anon_sym_yield, ACTIONS 87), (sym_ellipsis, ACTIONS 89),
    (anon_sym___mlir_type, ACTIONS 91), (sym_integer, ACTIONS 93), (sym_float, ACTIONS 89),
    (anon_sym_await, ACTIONS 95), (sym_true, ACTIONS 93), (sym_false, ACTIONS 93),
    (sym_none, ACTIONS 93), (sym_comment, ACTIONS 3), (sym_line_continuation, ACTIONS 3),
    (sym__dedent, ACTIONS 125), (sym_string_start, ACTIONS 97)]"

definition parse_table_609 :: "(nat \<times> nat) list" where "parse_table_609 = [
    (sym__statement, STATE 927), (sym__simple_statements, STATE 927),
    (sym_import_statement, STATE 11814), (sym_future_import_statement, STATE 11814),
    (sym_import_from_statement, STATE 11814), (sym_print_statement, STATE 11814),
    (sym_assert_statement, STATE 11814), (sym_comptime_assert_statement, STATE 11814),
    (sym_expression_statement, STATE 11814), (sym_tuple_expression, STATE 12425),
    (sym_named_expression, STATE 7969), (sym__named_expression_lhs, STATE 12752),
    (sym_return_statement, STATE 11814), (sym_delete_statement, STATE 11814),
    (sym_raise_statement, STATE 11814), (sym_pass_statement, STATE 11814),
    (sym_break_statement, STATE 11814), (sym_continue_statement, STATE 11814),
    (sym_extension_definition, STATE 927), (sym_mlir_region, STATE 927),
    (sym_comptime_statement, STATE 927), (sym_if_statement, STATE 927),
    (sym_match_statement, STATE 927), (sym_for_statement, STATE 927),
    (sym_while_statement, STATE 927), (sym_try_statement, STATE 927),
    (sym_with_statement, STATE 927), (sym_function_definition, STATE 927),
    (sym_global_statement, STATE 11814), (sym_nonlocal_statement, STATE 11814),
    (sym_exec_statement, STATE 11814), (sym_type_alias_statement, STATE 11814),
    (sym_parameterized_alias_statement, STATE 11814), (sym_class_definition, STATE 927),
    (sym_trait_definition, STATE 927), (sym_decorated_definition, STATE 927),
    (sym_decorator, STATE 3670), (sym_block, STATE 5730), (sym_pattern, STATE 8086),
    (sym_tuple_pattern, STATE 8101), (sym_list_pattern, STATE 8101),
    (sym_list_splat_pattern, STATE 6819), (sym_as_pattern, STATE 7969),
    (sym_expression, STATE 9883), (sym_primary_expression, STATE 7326),
    (sym_comptime_expression, STATE 7017), (sym_transfer_expression, STATE 7017),
    (sym_not_operator, STATE 7969), (sym_boolean_operator, STATE 7969),
    (sym_binary_operator, STATE 7017), (sym_unary_operator, STATE 7017),
    (sym_comparison_operator, STATE 7969), (sym_lambda, STATE 7969),
    (sym_assignment, STATE 12425), (sym_augmented_assignment, STATE 12425),
    (sym_pattern_list, STATE 8578), (sym_yield, STATE 12425), (sym_attribute, STATE 6836),
    (sym_subscript, STATE 6838), (sym_call, STATE 6845), (sym_mlir_type, STATE 7017),
    (sym_list, STATE 7017), (sym_set, STATE 7017), (sym_tuple, STATE 7017),
    (sym_dictionary, STATE 7017), (sym_struct_literal, STATE 7017),
    (sym_list_comprehension, STATE 7017), (sym_dictionary_comprehension, STATE 7017),
    (sym_set_comprehension, STATE 7017), (sym_generator_expression, STATE 7017),
    (sym_parenthesized_expression, STATE 7017), (sym_conditional_expression, STATE 7969),
    (sym_concatenated_string, STATE 7017), (sym_string, STATE 6751), (sym_await, STATE 7017),
    (aux_sym_module_repeat1, STATE 927), (aux_sym_decorated_definition_repeat1, STATE 3670),
    (sym_identifier, ACTIONS 9), (anon_sym_import, ACTIONS 11), (anon_sym_from, ACTIONS 13),
    (anon_sym_LPAREN, ACTIONS 15), (anon_sym_STAR, ACTIONS 17), (anon_sym_print, ACTIONS 19),
    (anon_sym_comptime, ACTIONS 99), (anon_sym_assert, ACTIONS 23),
    (anon_sym___comptime_assert, ACTIONS 25), (anon_sym_return, ACTIONS 27),
    (anon_sym_del, ACTIONS 29), (anon_sym_raise, ACTIONS 31), (anon_sym_pass, ACTIONS 33),
    (anon_sym_break, ACTIONS 35), (anon_sym_continue, ACTIONS 37),
    (anon_sym___extension, ACTIONS 101), (anon_sym___mlir_region, ACTIONS 103),
    (anon_sym_if, ACTIONS 105), (anon_sym_match, ACTIONS 107), (anon_sym_async, ACTIONS 109),
    (anon_sym_for, ACTIONS 111), (anon_sym_while, ACTIONS 113), (anon_sym_try, ACTIONS 115),
    (anon_sym_with, ACTIONS 117), (anon_sym_def, ACTIONS 119), (anon_sym_fn, ACTIONS 119),
    (anon_sym_LBRACK, ACTIONS 59), (anon_sym_LBRACE, ACTIONS 61), (anon_sym_global, ACTIONS 63),
    (anon_sym_nonlocal, ACTIONS 65), (anon_sym_exec, ACTIONS 67), (anon_sym_type, ACTIONS 69),
    (anon_sym_class, ACTIONS 121), (anon_sym_struct, ACTIONS 121), (anon_sym_mut, ACTIONS 73),
    (anon_sym_out, ACTIONS 73), (anon_sym_trait, ACTIONS 123), (anon_sym_AT, ACTIONS 77),
    (anon_sym_DASH, ACTIONS 79), (anon_sym_PLUS, ACTIONS 79), (anon_sym_ref, ACTIONS 81),
    (anon_sym_var, ACTIONS 81), (anon_sym_not, ACTIONS 83), (anon_sym_TILDE, ACTIONS 79),
    (anon_sym_lambda, ACTIONS 85), (anon_sym_yield, ACTIONS 87), (sym_ellipsis, ACTIONS 89),
    (anon_sym___mlir_type, ACTIONS 91), (sym_integer, ACTIONS 93), (sym_float, ACTIONS 89),
    (anon_sym_await, ACTIONS 95), (sym_true, ACTIONS 93), (sym_false, ACTIONS 93),
    (sym_none, ACTIONS 93), (sym_comment, ACTIONS 3), (sym_line_continuation, ACTIONS 3),
    (sym__dedent, ACTIONS 125), (sym_string_start, ACTIONS 97)]"

definition parse_table_610 :: "(nat \<times> nat) list" where "parse_table_610 = [
    (sym__statement, STATE 927), (sym__simple_statements, STATE 927),
    (sym_import_statement, STATE 11814), (sym_future_import_statement, STATE 11814),
    (sym_import_from_statement, STATE 11814), (sym_print_statement, STATE 11814),
    (sym_assert_statement, STATE 11814), (sym_comptime_assert_statement, STATE 11814),
    (sym_expression_statement, STATE 11814), (sym_tuple_expression, STATE 12425),
    (sym_named_expression, STATE 7969), (sym__named_expression_lhs, STATE 12752),
    (sym_return_statement, STATE 11814), (sym_delete_statement, STATE 11814),
    (sym_raise_statement, STATE 11814), (sym_pass_statement, STATE 11814),
    (sym_break_statement, STATE 11814), (sym_continue_statement, STATE 11814),
    (sym_extension_definition, STATE 927), (sym_mlir_region, STATE 927),
    (sym_comptime_statement, STATE 927), (sym_if_statement, STATE 927),
    (sym_match_statement, STATE 927), (sym_for_statement, STATE 927),
    (sym_while_statement, STATE 927), (sym_try_statement, STATE 927),
    (sym_with_statement, STATE 927), (sym_function_definition, STATE 927),
    (sym_global_statement, STATE 11814), (sym_nonlocal_statement, STATE 11814),
    (sym_exec_statement, STATE 11814), (sym_type_alias_statement, STATE 11814),
    (sym_parameterized_alias_statement, STATE 11814), (sym_class_definition, STATE 927),
    (sym_trait_definition, STATE 927), (sym_decorated_definition, STATE 927),
    (sym_decorator, STATE 3670), (sym_block, STATE 5732), (sym_pattern, STATE 8086),
    (sym_tuple_pattern, STATE 8101), (sym_list_pattern, STATE 8101),
    (sym_list_splat_pattern, STATE 6819), (sym_as_pattern, STATE 7969),
    (sym_expression, STATE 9883), (sym_primary_expression, STATE 7326),
    (sym_comptime_expression, STATE 7017), (sym_transfer_expression, STATE 7017),
    (sym_not_operator, STATE 7969), (sym_boolean_operator, STATE 7969),
    (sym_binary_operator, STATE 7017), (sym_unary_operator, STATE 7017),
    (sym_comparison_operator, STATE 7969), (sym_lambda, STATE 7969),
    (sym_assignment, STATE 12425), (sym_augmented_assignment, STATE 12425),
    (sym_pattern_list, STATE 8578), (sym_yield, STATE 12425), (sym_attribute, STATE 6836),
    (sym_subscript, STATE 6838), (sym_call, STATE 6845), (sym_mlir_type, STATE 7017),
    (sym_list, STATE 7017), (sym_set, STATE 7017), (sym_tuple, STATE 7017),
    (sym_dictionary, STATE 7017), (sym_struct_literal, STATE 7017),
    (sym_list_comprehension, STATE 7017), (sym_dictionary_comprehension, STATE 7017),
    (sym_set_comprehension, STATE 7017), (sym_generator_expression, STATE 7017),
    (sym_parenthesized_expression, STATE 7017), (sym_conditional_expression, STATE 7969),
    (sym_concatenated_string, STATE 7017), (sym_string, STATE 6751), (sym_await, STATE 7017),
    (aux_sym_module_repeat1, STATE 927), (aux_sym_decorated_definition_repeat1, STATE 3670),
    (sym_identifier, ACTIONS 9), (anon_sym_import, ACTIONS 11), (anon_sym_from, ACTIONS 13),
    (anon_sym_LPAREN, ACTIONS 15), (anon_sym_STAR, ACTIONS 17), (anon_sym_print, ACTIONS 19),
    (anon_sym_comptime, ACTIONS 99), (anon_sym_assert, ACTIONS 23),
    (anon_sym___comptime_assert, ACTIONS 25), (anon_sym_return, ACTIONS 27),
    (anon_sym_del, ACTIONS 29), (anon_sym_raise, ACTIONS 31), (anon_sym_pass, ACTIONS 33),
    (anon_sym_break, ACTIONS 35), (anon_sym_continue, ACTIONS 37),
    (anon_sym___extension, ACTIONS 101), (anon_sym___mlir_region, ACTIONS 103),
    (anon_sym_if, ACTIONS 105), (anon_sym_match, ACTIONS 107), (anon_sym_async, ACTIONS 109),
    (anon_sym_for, ACTIONS 111), (anon_sym_while, ACTIONS 113), (anon_sym_try, ACTIONS 115),
    (anon_sym_with, ACTIONS 117), (anon_sym_def, ACTIONS 119), (anon_sym_fn, ACTIONS 119),
    (anon_sym_LBRACK, ACTIONS 59), (anon_sym_LBRACE, ACTIONS 61), (anon_sym_global, ACTIONS 63),
    (anon_sym_nonlocal, ACTIONS 65), (anon_sym_exec, ACTIONS 67), (anon_sym_type, ACTIONS 69),
    (anon_sym_class, ACTIONS 121), (anon_sym_struct, ACTIONS 121), (anon_sym_mut, ACTIONS 73),
    (anon_sym_out, ACTIONS 73), (anon_sym_trait, ACTIONS 123), (anon_sym_AT, ACTIONS 77),
    (anon_sym_DASH, ACTIONS 79), (anon_sym_PLUS, ACTIONS 79), (anon_sym_ref, ACTIONS 81),
    (anon_sym_var, ACTIONS 81), (anon_sym_not, ACTIONS 83), (anon_sym_TILDE, ACTIONS 79),
    (anon_sym_lambda, ACTIONS 85), (anon_sym_yield, ACTIONS 87), (sym_ellipsis, ACTIONS 89),
    (anon_sym___mlir_type, ACTIONS 91), (sym_integer, ACTIONS 93), (sym_float, ACTIONS 89),
    (anon_sym_await, ACTIONS 95), (sym_true, ACTIONS 93), (sym_false, ACTIONS 93),
    (sym_none, ACTIONS 93), (sym_comment, ACTIONS 3), (sym_line_continuation, ACTIONS 3),
    (sym__dedent, ACTIONS 125), (sym_string_start, ACTIONS 97)]"

definition parse_table_611 :: "(nat \<times> nat) list" where "parse_table_611 = [
    (sym__statement, STATE 927), (sym__simple_statements, STATE 927),
    (sym_import_statement, STATE 11814), (sym_future_import_statement, STATE 11814),
    (sym_import_from_statement, STATE 11814), (sym_print_statement, STATE 11814),
    (sym_assert_statement, STATE 11814), (sym_comptime_assert_statement, STATE 11814),
    (sym_expression_statement, STATE 11814), (sym_tuple_expression, STATE 12425),
    (sym_named_expression, STATE 7969), (sym__named_expression_lhs, STATE 12752),
    (sym_return_statement, STATE 11814), (sym_delete_statement, STATE 11814),
    (sym_raise_statement, STATE 11814), (sym_pass_statement, STATE 11814),
    (sym_break_statement, STATE 11814), (sym_continue_statement, STATE 11814),
    (sym_extension_definition, STATE 927), (sym_mlir_region, STATE 927),
    (sym_comptime_statement, STATE 927), (sym_if_statement, STATE 927),
    (sym_match_statement, STATE 927), (sym_for_statement, STATE 927),
    (sym_while_statement, STATE 927), (sym_try_statement, STATE 927),
    (sym_with_statement, STATE 927), (sym_function_definition, STATE 927),
    (sym_global_statement, STATE 11814), (sym_nonlocal_statement, STATE 11814),
    (sym_exec_statement, STATE 11814), (sym_type_alias_statement, STATE 11814),
    (sym_parameterized_alias_statement, STATE 11814), (sym_class_definition, STATE 927),
    (sym_trait_definition, STATE 927), (sym_decorated_definition, STATE 927),
    (sym_decorator, STATE 3670), (sym_block, STATE 5740), (sym_pattern, STATE 8086),
    (sym_tuple_pattern, STATE 8101), (sym_list_pattern, STATE 8101),
    (sym_list_splat_pattern, STATE 6819), (sym_as_pattern, STATE 7969),
    (sym_expression, STATE 9883), (sym_primary_expression, STATE 7326),
    (sym_comptime_expression, STATE 7017), (sym_transfer_expression, STATE 7017),
    (sym_not_operator, STATE 7969), (sym_boolean_operator, STATE 7969),
    (sym_binary_operator, STATE 7017), (sym_unary_operator, STATE 7017),
    (sym_comparison_operator, STATE 7969), (sym_lambda, STATE 7969),
    (sym_assignment, STATE 12425), (sym_augmented_assignment, STATE 12425),
    (sym_pattern_list, STATE 8578), (sym_yield, STATE 12425), (sym_attribute, STATE 6836),
    (sym_subscript, STATE 6838), (sym_call, STATE 6845), (sym_mlir_type, STATE 7017),
    (sym_list, STATE 7017), (sym_set, STATE 7017), (sym_tuple, STATE 7017),
    (sym_dictionary, STATE 7017), (sym_struct_literal, STATE 7017),
    (sym_list_comprehension, STATE 7017), (sym_dictionary_comprehension, STATE 7017),
    (sym_set_comprehension, STATE 7017), (sym_generator_expression, STATE 7017),
    (sym_parenthesized_expression, STATE 7017), (sym_conditional_expression, STATE 7969),
    (sym_concatenated_string, STATE 7017), (sym_string, STATE 6751), (sym_await, STATE 7017),
    (aux_sym_module_repeat1, STATE 927), (aux_sym_decorated_definition_repeat1, STATE 3670),
    (sym_identifier, ACTIONS 9), (anon_sym_import, ACTIONS 11), (anon_sym_from, ACTIONS 13),
    (anon_sym_LPAREN, ACTIONS 15), (anon_sym_STAR, ACTIONS 17), (anon_sym_print, ACTIONS 19),
    (anon_sym_comptime, ACTIONS 99), (anon_sym_assert, ACTIONS 23),
    (anon_sym___comptime_assert, ACTIONS 25), (anon_sym_return, ACTIONS 27),
    (anon_sym_del, ACTIONS 29), (anon_sym_raise, ACTIONS 31), (anon_sym_pass, ACTIONS 33),
    (anon_sym_break, ACTIONS 35), (anon_sym_continue, ACTIONS 37),
    (anon_sym___extension, ACTIONS 101), (anon_sym___mlir_region, ACTIONS 103),
    (anon_sym_if, ACTIONS 105), (anon_sym_match, ACTIONS 107), (anon_sym_async, ACTIONS 109),
    (anon_sym_for, ACTIONS 111), (anon_sym_while, ACTIONS 113), (anon_sym_try, ACTIONS 115),
    (anon_sym_with, ACTIONS 117), (anon_sym_def, ACTIONS 119), (anon_sym_fn, ACTIONS 119),
    (anon_sym_LBRACK, ACTIONS 59), (anon_sym_LBRACE, ACTIONS 61), (anon_sym_global, ACTIONS 63),
    (anon_sym_nonlocal, ACTIONS 65), (anon_sym_exec, ACTIONS 67), (anon_sym_type, ACTIONS 69),
    (anon_sym_class, ACTIONS 121), (anon_sym_struct, ACTIONS 121), (anon_sym_mut, ACTIONS 73),
    (anon_sym_out, ACTIONS 73), (anon_sym_trait, ACTIONS 123), (anon_sym_AT, ACTIONS 77),
    (anon_sym_DASH, ACTIONS 79), (anon_sym_PLUS, ACTIONS 79), (anon_sym_ref, ACTIONS 81),
    (anon_sym_var, ACTIONS 81), (anon_sym_not, ACTIONS 83), (anon_sym_TILDE, ACTIONS 79),
    (anon_sym_lambda, ACTIONS 85), (anon_sym_yield, ACTIONS 87), (sym_ellipsis, ACTIONS 89),
    (anon_sym___mlir_type, ACTIONS 91), (sym_integer, ACTIONS 93), (sym_float, ACTIONS 89),
    (anon_sym_await, ACTIONS 95), (sym_true, ACTIONS 93), (sym_false, ACTIONS 93),
    (sym_none, ACTIONS 93), (sym_comment, ACTIONS 3), (sym_line_continuation, ACTIONS 3),
    (sym__dedent, ACTIONS 125), (sym_string_start, ACTIONS 97)]"

definition parse_table_612 :: "(nat \<times> nat) list" where "parse_table_612 = [
    (sym__statement, STATE 927), (sym__simple_statements, STATE 927),
    (sym_import_statement, STATE 11814), (sym_future_import_statement, STATE 11814),
    (sym_import_from_statement, STATE 11814), (sym_print_statement, STATE 11814),
    (sym_assert_statement, STATE 11814), (sym_comptime_assert_statement, STATE 11814),
    (sym_expression_statement, STATE 11814), (sym_tuple_expression, STATE 12425),
    (sym_named_expression, STATE 7969), (sym__named_expression_lhs, STATE 12752),
    (sym_return_statement, STATE 11814), (sym_delete_statement, STATE 11814),
    (sym_raise_statement, STATE 11814), (sym_pass_statement, STATE 11814),
    (sym_break_statement, STATE 11814), (sym_continue_statement, STATE 11814),
    (sym_extension_definition, STATE 927), (sym_mlir_region, STATE 927),
    (sym_comptime_statement, STATE 927), (sym_if_statement, STATE 927),
    (sym_match_statement, STATE 927), (sym_for_statement, STATE 927),
    (sym_while_statement, STATE 927), (sym_try_statement, STATE 927),
    (sym_with_statement, STATE 927), (sym_function_definition, STATE 927),
    (sym_global_statement, STATE 11814), (sym_nonlocal_statement, STATE 11814),
    (sym_exec_statement, STATE 11814), (sym_type_alias_statement, STATE 11814),
    (sym_parameterized_alias_statement, STATE 11814), (sym_class_definition, STATE 927),
    (sym_trait_definition, STATE 927), (sym_decorated_definition, STATE 927),
    (sym_decorator, STATE 3670), (sym_block, STATE 5747), (sym_pattern, STATE 8086),
    (sym_tuple_pattern, STATE 8101), (sym_list_pattern, STATE 8101),
    (sym_list_splat_pattern, STATE 6819), (sym_as_pattern, STATE 7969),
    (sym_expression, STATE 9883), (sym_primary_expression, STATE 7326),
    (sym_comptime_expression, STATE 7017), (sym_transfer_expression, STATE 7017),
    (sym_not_operator, STATE 7969), (sym_boolean_operator, STATE 7969),
    (sym_binary_operator, STATE 7017), (sym_unary_operator, STATE 7017),
    (sym_comparison_operator, STATE 7969), (sym_lambda, STATE 7969),
    (sym_assignment, STATE 12425), (sym_augmented_assignment, STATE 12425),
    (sym_pattern_list, STATE 8578), (sym_yield, STATE 12425), (sym_attribute, STATE 6836),
    (sym_subscript, STATE 6838), (sym_call, STATE 6845), (sym_mlir_type, STATE 7017),
    (sym_list, STATE 7017), (sym_set, STATE 7017), (sym_tuple, STATE 7017),
    (sym_dictionary, STATE 7017), (sym_struct_literal, STATE 7017),
    (sym_list_comprehension, STATE 7017), (sym_dictionary_comprehension, STATE 7017),
    (sym_set_comprehension, STATE 7017), (sym_generator_expression, STATE 7017),
    (sym_parenthesized_expression, STATE 7017), (sym_conditional_expression, STATE 7969),
    (sym_concatenated_string, STATE 7017), (sym_string, STATE 6751), (sym_await, STATE 7017),
    (aux_sym_module_repeat1, STATE 927), (aux_sym_decorated_definition_repeat1, STATE 3670),
    (sym_identifier, ACTIONS 9), (anon_sym_import, ACTIONS 11), (anon_sym_from, ACTIONS 13),
    (anon_sym_LPAREN, ACTIONS 15), (anon_sym_STAR, ACTIONS 17), (anon_sym_print, ACTIONS 19),
    (anon_sym_comptime, ACTIONS 99), (anon_sym_assert, ACTIONS 23),
    (anon_sym___comptime_assert, ACTIONS 25), (anon_sym_return, ACTIONS 27),
    (anon_sym_del, ACTIONS 29), (anon_sym_raise, ACTIONS 31), (anon_sym_pass, ACTIONS 33),
    (anon_sym_break, ACTIONS 35), (anon_sym_continue, ACTIONS 37),
    (anon_sym___extension, ACTIONS 101), (anon_sym___mlir_region, ACTIONS 103),
    (anon_sym_if, ACTIONS 105), (anon_sym_match, ACTIONS 107), (anon_sym_async, ACTIONS 109),
    (anon_sym_for, ACTIONS 111), (anon_sym_while, ACTIONS 113), (anon_sym_try, ACTIONS 115),
    (anon_sym_with, ACTIONS 117), (anon_sym_def, ACTIONS 119), (anon_sym_fn, ACTIONS 119),
    (anon_sym_LBRACK, ACTIONS 59), (anon_sym_LBRACE, ACTIONS 61), (anon_sym_global, ACTIONS 63),
    (anon_sym_nonlocal, ACTIONS 65), (anon_sym_exec, ACTIONS 67), (anon_sym_type, ACTIONS 69),
    (anon_sym_class, ACTIONS 121), (anon_sym_struct, ACTIONS 121), (anon_sym_mut, ACTIONS 73),
    (anon_sym_out, ACTIONS 73), (anon_sym_trait, ACTIONS 123), (anon_sym_AT, ACTIONS 77),
    (anon_sym_DASH, ACTIONS 79), (anon_sym_PLUS, ACTIONS 79), (anon_sym_ref, ACTIONS 81),
    (anon_sym_var, ACTIONS 81), (anon_sym_not, ACTIONS 83), (anon_sym_TILDE, ACTIONS 79),
    (anon_sym_lambda, ACTIONS 85), (anon_sym_yield, ACTIONS 87), (sym_ellipsis, ACTIONS 89),
    (anon_sym___mlir_type, ACTIONS 91), (sym_integer, ACTIONS 93), (sym_float, ACTIONS 89),
    (anon_sym_await, ACTIONS 95), (sym_true, ACTIONS 93), (sym_false, ACTIONS 93),
    (sym_none, ACTIONS 93), (sym_comment, ACTIONS 3), (sym_line_continuation, ACTIONS 3),
    (sym__dedent, ACTIONS 125), (sym_string_start, ACTIONS 97)]"

definition parse_table_613 :: "(nat \<times> nat) list" where "parse_table_613 = [
    (sym__statement, STATE 927), (sym__simple_statements, STATE 927),
    (sym_import_statement, STATE 11814), (sym_future_import_statement, STATE 11814),
    (sym_import_from_statement, STATE 11814), (sym_print_statement, STATE 11814),
    (sym_assert_statement, STATE 11814), (sym_comptime_assert_statement, STATE 11814),
    (sym_expression_statement, STATE 11814), (sym_tuple_expression, STATE 12425),
    (sym_named_expression, STATE 7969), (sym__named_expression_lhs, STATE 12752),
    (sym_return_statement, STATE 11814), (sym_delete_statement, STATE 11814),
    (sym_raise_statement, STATE 11814), (sym_pass_statement, STATE 11814),
    (sym_break_statement, STATE 11814), (sym_continue_statement, STATE 11814),
    (sym_extension_definition, STATE 927), (sym_mlir_region, STATE 927),
    (sym_comptime_statement, STATE 927), (sym_if_statement, STATE 927),
    (sym_match_statement, STATE 927), (sym_for_statement, STATE 927),
    (sym_while_statement, STATE 927), (sym_try_statement, STATE 927),
    (sym_with_statement, STATE 927), (sym_function_definition, STATE 927),
    (sym_global_statement, STATE 11814), (sym_nonlocal_statement, STATE 11814),
    (sym_exec_statement, STATE 11814), (sym_type_alias_statement, STATE 11814),
    (sym_parameterized_alias_statement, STATE 11814), (sym_class_definition, STATE 927),
    (sym_trait_definition, STATE 927), (sym_decorated_definition, STATE 927),
    (sym_decorator, STATE 3670), (sym_block, STATE 5748), (sym_pattern, STATE 8086),
    (sym_tuple_pattern, STATE 8101), (sym_list_pattern, STATE 8101),
    (sym_list_splat_pattern, STATE 6819), (sym_as_pattern, STATE 7969),
    (sym_expression, STATE 9883), (sym_primary_expression, STATE 7326),
    (sym_comptime_expression, STATE 7017), (sym_transfer_expression, STATE 7017),
    (sym_not_operator, STATE 7969), (sym_boolean_operator, STATE 7969),
    (sym_binary_operator, STATE 7017), (sym_unary_operator, STATE 7017),
    (sym_comparison_operator, STATE 7969), (sym_lambda, STATE 7969),
    (sym_assignment, STATE 12425), (sym_augmented_assignment, STATE 12425),
    (sym_pattern_list, STATE 8578), (sym_yield, STATE 12425), (sym_attribute, STATE 6836),
    (sym_subscript, STATE 6838), (sym_call, STATE 6845), (sym_mlir_type, STATE 7017),
    (sym_list, STATE 7017), (sym_set, STATE 7017), (sym_tuple, STATE 7017),
    (sym_dictionary, STATE 7017), (sym_struct_literal, STATE 7017),
    (sym_list_comprehension, STATE 7017), (sym_dictionary_comprehension, STATE 7017),
    (sym_set_comprehension, STATE 7017), (sym_generator_expression, STATE 7017),
    (sym_parenthesized_expression, STATE 7017), (sym_conditional_expression, STATE 7969),
    (sym_concatenated_string, STATE 7017), (sym_string, STATE 6751), (sym_await, STATE 7017),
    (aux_sym_module_repeat1, STATE 927), (aux_sym_decorated_definition_repeat1, STATE 3670),
    (sym_identifier, ACTIONS 9), (anon_sym_import, ACTIONS 11), (anon_sym_from, ACTIONS 13),
    (anon_sym_LPAREN, ACTIONS 15), (anon_sym_STAR, ACTIONS 17), (anon_sym_print, ACTIONS 19),
    (anon_sym_comptime, ACTIONS 99), (anon_sym_assert, ACTIONS 23),
    (anon_sym___comptime_assert, ACTIONS 25), (anon_sym_return, ACTIONS 27),
    (anon_sym_del, ACTIONS 29), (anon_sym_raise, ACTIONS 31), (anon_sym_pass, ACTIONS 33),
    (anon_sym_break, ACTIONS 35), (anon_sym_continue, ACTIONS 37),
    (anon_sym___extension, ACTIONS 101), (anon_sym___mlir_region, ACTIONS 103),
    (anon_sym_if, ACTIONS 105), (anon_sym_match, ACTIONS 107), (anon_sym_async, ACTIONS 109),
    (anon_sym_for, ACTIONS 111), (anon_sym_while, ACTIONS 113), (anon_sym_try, ACTIONS 115),
    (anon_sym_with, ACTIONS 117), (anon_sym_def, ACTIONS 119), (anon_sym_fn, ACTIONS 119),
    (anon_sym_LBRACK, ACTIONS 59), (anon_sym_LBRACE, ACTIONS 61), (anon_sym_global, ACTIONS 63),
    (anon_sym_nonlocal, ACTIONS 65), (anon_sym_exec, ACTIONS 67), (anon_sym_type, ACTIONS 69),
    (anon_sym_class, ACTIONS 121), (anon_sym_struct, ACTIONS 121), (anon_sym_mut, ACTIONS 73),
    (anon_sym_out, ACTIONS 73), (anon_sym_trait, ACTIONS 123), (anon_sym_AT, ACTIONS 77),
    (anon_sym_DASH, ACTIONS 79), (anon_sym_PLUS, ACTIONS 79), (anon_sym_ref, ACTIONS 81),
    (anon_sym_var, ACTIONS 81), (anon_sym_not, ACTIONS 83), (anon_sym_TILDE, ACTIONS 79),
    (anon_sym_lambda, ACTIONS 85), (anon_sym_yield, ACTIONS 87), (sym_ellipsis, ACTIONS 89),
    (anon_sym___mlir_type, ACTIONS 91), (sym_integer, ACTIONS 93), (sym_float, ACTIONS 89),
    (anon_sym_await, ACTIONS 95), (sym_true, ACTIONS 93), (sym_false, ACTIONS 93),
    (sym_none, ACTIONS 93), (sym_comment, ACTIONS 3), (sym_line_continuation, ACTIONS 3),
    (sym__dedent, ACTIONS 125), (sym_string_start, ACTIONS 97)]"

definition parse_table_614 :: "(nat \<times> nat) list" where "parse_table_614 = [
    (sym__statement, STATE 927), (sym__simple_statements, STATE 927),
    (sym_import_statement, STATE 11814), (sym_future_import_statement, STATE 11814),
    (sym_import_from_statement, STATE 11814), (sym_print_statement, STATE 11814),
    (sym_assert_statement, STATE 11814), (sym_comptime_assert_statement, STATE 11814),
    (sym_expression_statement, STATE 11814), (sym_tuple_expression, STATE 12425),
    (sym_named_expression, STATE 7969), (sym__named_expression_lhs, STATE 12752),
    (sym_return_statement, STATE 11814), (sym_delete_statement, STATE 11814),
    (sym_raise_statement, STATE 11814), (sym_pass_statement, STATE 11814),
    (sym_break_statement, STATE 11814), (sym_continue_statement, STATE 11814),
    (sym_extension_definition, STATE 927), (sym_mlir_region, STATE 927),
    (sym_comptime_statement, STATE 927), (sym_if_statement, STATE 927),
    (sym_match_statement, STATE 927), (sym_for_statement, STATE 927),
    (sym_while_statement, STATE 927), (sym_try_statement, STATE 927),
    (sym_with_statement, STATE 927), (sym_function_definition, STATE 927),
    (sym_global_statement, STATE 11814), (sym_nonlocal_statement, STATE 11814),
    (sym_exec_statement, STATE 11814), (sym_type_alias_statement, STATE 11814),
    (sym_parameterized_alias_statement, STATE 11814), (sym_class_definition, STATE 927),
    (sym_trait_definition, STATE 927), (sym_decorated_definition, STATE 927),
    (sym_decorator, STATE 3670), (sym_block, STATE 5750), (sym_pattern, STATE 8086),
    (sym_tuple_pattern, STATE 8101), (sym_list_pattern, STATE 8101),
    (sym_list_splat_pattern, STATE 6819), (sym_as_pattern, STATE 7969),
    (sym_expression, STATE 9883), (sym_primary_expression, STATE 7326),
    (sym_comptime_expression, STATE 7017), (sym_transfer_expression, STATE 7017),
    (sym_not_operator, STATE 7969), (sym_boolean_operator, STATE 7969),
    (sym_binary_operator, STATE 7017), (sym_unary_operator, STATE 7017),
    (sym_comparison_operator, STATE 7969), (sym_lambda, STATE 7969),
    (sym_assignment, STATE 12425), (sym_augmented_assignment, STATE 12425),
    (sym_pattern_list, STATE 8578), (sym_yield, STATE 12425), (sym_attribute, STATE 6836),
    (sym_subscript, STATE 6838), (sym_call, STATE 6845), (sym_mlir_type, STATE 7017),
    (sym_list, STATE 7017), (sym_set, STATE 7017), (sym_tuple, STATE 7017),
    (sym_dictionary, STATE 7017), (sym_struct_literal, STATE 7017),
    (sym_list_comprehension, STATE 7017), (sym_dictionary_comprehension, STATE 7017),
    (sym_set_comprehension, STATE 7017), (sym_generator_expression, STATE 7017),
    (sym_parenthesized_expression, STATE 7017), (sym_conditional_expression, STATE 7969),
    (sym_concatenated_string, STATE 7017), (sym_string, STATE 6751), (sym_await, STATE 7017),
    (aux_sym_module_repeat1, STATE 927), (aux_sym_decorated_definition_repeat1, STATE 3670),
    (sym_identifier, ACTIONS 9), (anon_sym_import, ACTIONS 11), (anon_sym_from, ACTIONS 13),
    (anon_sym_LPAREN, ACTIONS 15), (anon_sym_STAR, ACTIONS 17), (anon_sym_print, ACTIONS 19),
    (anon_sym_comptime, ACTIONS 99), (anon_sym_assert, ACTIONS 23),
    (anon_sym___comptime_assert, ACTIONS 25), (anon_sym_return, ACTIONS 27),
    (anon_sym_del, ACTIONS 29), (anon_sym_raise, ACTIONS 31), (anon_sym_pass, ACTIONS 33),
    (anon_sym_break, ACTIONS 35), (anon_sym_continue, ACTIONS 37),
    (anon_sym___extension, ACTIONS 101), (anon_sym___mlir_region, ACTIONS 103),
    (anon_sym_if, ACTIONS 105), (anon_sym_match, ACTIONS 107), (anon_sym_async, ACTIONS 109),
    (anon_sym_for, ACTIONS 111), (anon_sym_while, ACTIONS 113), (anon_sym_try, ACTIONS 115),
    (anon_sym_with, ACTIONS 117), (anon_sym_def, ACTIONS 119), (anon_sym_fn, ACTIONS 119),
    (anon_sym_LBRACK, ACTIONS 59), (anon_sym_LBRACE, ACTIONS 61), (anon_sym_global, ACTIONS 63),
    (anon_sym_nonlocal, ACTIONS 65), (anon_sym_exec, ACTIONS 67), (anon_sym_type, ACTIONS 69),
    (anon_sym_class, ACTIONS 121), (anon_sym_struct, ACTIONS 121), (anon_sym_mut, ACTIONS 73),
    (anon_sym_out, ACTIONS 73), (anon_sym_trait, ACTIONS 123), (anon_sym_AT, ACTIONS 77),
    (anon_sym_DASH, ACTIONS 79), (anon_sym_PLUS, ACTIONS 79), (anon_sym_ref, ACTIONS 81),
    (anon_sym_var, ACTIONS 81), (anon_sym_not, ACTIONS 83), (anon_sym_TILDE, ACTIONS 79),
    (anon_sym_lambda, ACTIONS 85), (anon_sym_yield, ACTIONS 87), (sym_ellipsis, ACTIONS 89),
    (anon_sym___mlir_type, ACTIONS 91), (sym_integer, ACTIONS 93), (sym_float, ACTIONS 89),
    (anon_sym_await, ACTIONS 95), (sym_true, ACTIONS 93), (sym_false, ACTIONS 93),
    (sym_none, ACTIONS 93), (sym_comment, ACTIONS 3), (sym_line_continuation, ACTIONS 3),
    (sym__dedent, ACTIONS 125), (sym_string_start, ACTIONS 97)]"

definition parse_table_615 :: "(nat \<times> nat) list" where "parse_table_615 = [
    (sym__statement, STATE 927), (sym__simple_statements, STATE 927),
    (sym_import_statement, STATE 11814), (sym_future_import_statement, STATE 11814),
    (sym_import_from_statement, STATE 11814), (sym_print_statement, STATE 11814),
    (sym_assert_statement, STATE 11814), (sym_comptime_assert_statement, STATE 11814),
    (sym_expression_statement, STATE 11814), (sym_tuple_expression, STATE 12425),
    (sym_named_expression, STATE 7969), (sym__named_expression_lhs, STATE 12752),
    (sym_return_statement, STATE 11814), (sym_delete_statement, STATE 11814),
    (sym_raise_statement, STATE 11814), (sym_pass_statement, STATE 11814),
    (sym_break_statement, STATE 11814), (sym_continue_statement, STATE 11814),
    (sym_extension_definition, STATE 927), (sym_mlir_region, STATE 927),
    (sym_comptime_statement, STATE 927), (sym_if_statement, STATE 927),
    (sym_match_statement, STATE 927), (sym_for_statement, STATE 927),
    (sym_while_statement, STATE 927), (sym_try_statement, STATE 927),
    (sym_with_statement, STATE 927), (sym_function_definition, STATE 927),
    (sym_global_statement, STATE 11814), (sym_nonlocal_statement, STATE 11814),
    (sym_exec_statement, STATE 11814), (sym_type_alias_statement, STATE 11814),
    (sym_parameterized_alias_statement, STATE 11814), (sym_class_definition, STATE 927),
    (sym_trait_definition, STATE 927), (sym_decorated_definition, STATE 927),
    (sym_decorator, STATE 3670), (sym_block, STATE 5751), (sym_pattern, STATE 8086),
    (sym_tuple_pattern, STATE 8101), (sym_list_pattern, STATE 8101),
    (sym_list_splat_pattern, STATE 6819), (sym_as_pattern, STATE 7969),
    (sym_expression, STATE 9883), (sym_primary_expression, STATE 7326),
    (sym_comptime_expression, STATE 7017), (sym_transfer_expression, STATE 7017),
    (sym_not_operator, STATE 7969), (sym_boolean_operator, STATE 7969),
    (sym_binary_operator, STATE 7017), (sym_unary_operator, STATE 7017),
    (sym_comparison_operator, STATE 7969), (sym_lambda, STATE 7969),
    (sym_assignment, STATE 12425), (sym_augmented_assignment, STATE 12425),
    (sym_pattern_list, STATE 8578), (sym_yield, STATE 12425), (sym_attribute, STATE 6836),
    (sym_subscript, STATE 6838), (sym_call, STATE 6845), (sym_mlir_type, STATE 7017),
    (sym_list, STATE 7017), (sym_set, STATE 7017), (sym_tuple, STATE 7017),
    (sym_dictionary, STATE 7017), (sym_struct_literal, STATE 7017),
    (sym_list_comprehension, STATE 7017), (sym_dictionary_comprehension, STATE 7017),
    (sym_set_comprehension, STATE 7017), (sym_generator_expression, STATE 7017),
    (sym_parenthesized_expression, STATE 7017), (sym_conditional_expression, STATE 7969),
    (sym_concatenated_string, STATE 7017), (sym_string, STATE 6751), (sym_await, STATE 7017),
    (aux_sym_module_repeat1, STATE 927), (aux_sym_decorated_definition_repeat1, STATE 3670),
    (sym_identifier, ACTIONS 9), (anon_sym_import, ACTIONS 11), (anon_sym_from, ACTIONS 13),
    (anon_sym_LPAREN, ACTIONS 15), (anon_sym_STAR, ACTIONS 17), (anon_sym_print, ACTIONS 19),
    (anon_sym_comptime, ACTIONS 99), (anon_sym_assert, ACTIONS 23),
    (anon_sym___comptime_assert, ACTIONS 25), (anon_sym_return, ACTIONS 27),
    (anon_sym_del, ACTIONS 29), (anon_sym_raise, ACTIONS 31), (anon_sym_pass, ACTIONS 33),
    (anon_sym_break, ACTIONS 35), (anon_sym_continue, ACTIONS 37),
    (anon_sym___extension, ACTIONS 101), (anon_sym___mlir_region, ACTIONS 103),
    (anon_sym_if, ACTIONS 105), (anon_sym_match, ACTIONS 107), (anon_sym_async, ACTIONS 109),
    (anon_sym_for, ACTIONS 111), (anon_sym_while, ACTIONS 113), (anon_sym_try, ACTIONS 115),
    (anon_sym_with, ACTIONS 117), (anon_sym_def, ACTIONS 119), (anon_sym_fn, ACTIONS 119),
    (anon_sym_LBRACK, ACTIONS 59), (anon_sym_LBRACE, ACTIONS 61), (anon_sym_global, ACTIONS 63),
    (anon_sym_nonlocal, ACTIONS 65), (anon_sym_exec, ACTIONS 67), (anon_sym_type, ACTIONS 69),
    (anon_sym_class, ACTIONS 121), (anon_sym_struct, ACTIONS 121), (anon_sym_mut, ACTIONS 73),
    (anon_sym_out, ACTIONS 73), (anon_sym_trait, ACTIONS 123), (anon_sym_AT, ACTIONS 77),
    (anon_sym_DASH, ACTIONS 79), (anon_sym_PLUS, ACTIONS 79), (anon_sym_ref, ACTIONS 81),
    (anon_sym_var, ACTIONS 81), (anon_sym_not, ACTIONS 83), (anon_sym_TILDE, ACTIONS 79),
    (anon_sym_lambda, ACTIONS 85), (anon_sym_yield, ACTIONS 87), (sym_ellipsis, ACTIONS 89),
    (anon_sym___mlir_type, ACTIONS 91), (sym_integer, ACTIONS 93), (sym_float, ACTIONS 89),
    (anon_sym_await, ACTIONS 95), (sym_true, ACTIONS 93), (sym_false, ACTIONS 93),
    (sym_none, ACTIONS 93), (sym_comment, ACTIONS 3), (sym_line_continuation, ACTIONS 3),
    (sym__dedent, ACTIONS 125), (sym_string_start, ACTIONS 97)]"

definition parse_table_616 :: "(nat \<times> nat) list" where "parse_table_616 = [
    (sym__statement, STATE 927), (sym__simple_statements, STATE 927),
    (sym_import_statement, STATE 11814), (sym_future_import_statement, STATE 11814),
    (sym_import_from_statement, STATE 11814), (sym_print_statement, STATE 11814),
    (sym_assert_statement, STATE 11814), (sym_comptime_assert_statement, STATE 11814),
    (sym_expression_statement, STATE 11814), (sym_tuple_expression, STATE 12425),
    (sym_named_expression, STATE 7969), (sym__named_expression_lhs, STATE 12752),
    (sym_return_statement, STATE 11814), (sym_delete_statement, STATE 11814),
    (sym_raise_statement, STATE 11814), (sym_pass_statement, STATE 11814),
    (sym_break_statement, STATE 11814), (sym_continue_statement, STATE 11814),
    (sym_extension_definition, STATE 927), (sym_mlir_region, STATE 927),
    (sym_comptime_statement, STATE 927), (sym_if_statement, STATE 927),
    (sym_match_statement, STATE 927), (sym_for_statement, STATE 927),
    (sym_while_statement, STATE 927), (sym_try_statement, STATE 927),
    (sym_with_statement, STATE 927), (sym_function_definition, STATE 927),
    (sym_global_statement, STATE 11814), (sym_nonlocal_statement, STATE 11814),
    (sym_exec_statement, STATE 11814), (sym_type_alias_statement, STATE 11814),
    (sym_parameterized_alias_statement, STATE 11814), (sym_class_definition, STATE 927),
    (sym_trait_definition, STATE 927), (sym_decorated_definition, STATE 927),
    (sym_decorator, STATE 3670), (sym_block, STATE 5754), (sym_pattern, STATE 8086),
    (sym_tuple_pattern, STATE 8101), (sym_list_pattern, STATE 8101),
    (sym_list_splat_pattern, STATE 6819), (sym_as_pattern, STATE 7969),
    (sym_expression, STATE 9883), (sym_primary_expression, STATE 7326),
    (sym_comptime_expression, STATE 7017), (sym_transfer_expression, STATE 7017),
    (sym_not_operator, STATE 7969), (sym_boolean_operator, STATE 7969),
    (sym_binary_operator, STATE 7017), (sym_unary_operator, STATE 7017),
    (sym_comparison_operator, STATE 7969), (sym_lambda, STATE 7969),
    (sym_assignment, STATE 12425), (sym_augmented_assignment, STATE 12425),
    (sym_pattern_list, STATE 8578), (sym_yield, STATE 12425), (sym_attribute, STATE 6836),
    (sym_subscript, STATE 6838), (sym_call, STATE 6845), (sym_mlir_type, STATE 7017),
    (sym_list, STATE 7017), (sym_set, STATE 7017), (sym_tuple, STATE 7017),
    (sym_dictionary, STATE 7017), (sym_struct_literal, STATE 7017),
    (sym_list_comprehension, STATE 7017), (sym_dictionary_comprehension, STATE 7017),
    (sym_set_comprehension, STATE 7017), (sym_generator_expression, STATE 7017),
    (sym_parenthesized_expression, STATE 7017), (sym_conditional_expression, STATE 7969),
    (sym_concatenated_string, STATE 7017), (sym_string, STATE 6751), (sym_await, STATE 7017),
    (aux_sym_module_repeat1, STATE 927), (aux_sym_decorated_definition_repeat1, STATE 3670),
    (sym_identifier, ACTIONS 9), (anon_sym_import, ACTIONS 11), (anon_sym_from, ACTIONS 13),
    (anon_sym_LPAREN, ACTIONS 15), (anon_sym_STAR, ACTIONS 17), (anon_sym_print, ACTIONS 19),
    (anon_sym_comptime, ACTIONS 99), (anon_sym_assert, ACTIONS 23),
    (anon_sym___comptime_assert, ACTIONS 25), (anon_sym_return, ACTIONS 27),
    (anon_sym_del, ACTIONS 29), (anon_sym_raise, ACTIONS 31), (anon_sym_pass, ACTIONS 33),
    (anon_sym_break, ACTIONS 35), (anon_sym_continue, ACTIONS 37),
    (anon_sym___extension, ACTIONS 101), (anon_sym___mlir_region, ACTIONS 103),
    (anon_sym_if, ACTIONS 105), (anon_sym_match, ACTIONS 107), (anon_sym_async, ACTIONS 109),
    (anon_sym_for, ACTIONS 111), (anon_sym_while, ACTIONS 113), (anon_sym_try, ACTIONS 115),
    (anon_sym_with, ACTIONS 117), (anon_sym_def, ACTIONS 119), (anon_sym_fn, ACTIONS 119),
    (anon_sym_LBRACK, ACTIONS 59), (anon_sym_LBRACE, ACTIONS 61), (anon_sym_global, ACTIONS 63),
    (anon_sym_nonlocal, ACTIONS 65), (anon_sym_exec, ACTIONS 67), (anon_sym_type, ACTIONS 69),
    (anon_sym_class, ACTIONS 121), (anon_sym_struct, ACTIONS 121), (anon_sym_mut, ACTIONS 73),
    (anon_sym_out, ACTIONS 73), (anon_sym_trait, ACTIONS 123), (anon_sym_AT, ACTIONS 77),
    (anon_sym_DASH, ACTIONS 79), (anon_sym_PLUS, ACTIONS 79), (anon_sym_ref, ACTIONS 81),
    (anon_sym_var, ACTIONS 81), (anon_sym_not, ACTIONS 83), (anon_sym_TILDE, ACTIONS 79),
    (anon_sym_lambda, ACTIONS 85), (anon_sym_yield, ACTIONS 87), (sym_ellipsis, ACTIONS 89),
    (anon_sym___mlir_type, ACTIONS 91), (sym_integer, ACTIONS 93), (sym_float, ACTIONS 89),
    (anon_sym_await, ACTIONS 95), (sym_true, ACTIONS 93), (sym_false, ACTIONS 93),
    (sym_none, ACTIONS 93), (sym_comment, ACTIONS 3), (sym_line_continuation, ACTIONS 3),
    (sym__dedent, ACTIONS 125), (sym_string_start, ACTIONS 97)]"

definition parse_table_617 :: "(nat \<times> nat) list" where "parse_table_617 = [
    (sym__statement, STATE 927), (sym__simple_statements, STATE 927),
    (sym_import_statement, STATE 11814), (sym_future_import_statement, STATE 11814),
    (sym_import_from_statement, STATE 11814), (sym_print_statement, STATE 11814),
    (sym_assert_statement, STATE 11814), (sym_comptime_assert_statement, STATE 11814),
    (sym_expression_statement, STATE 11814), (sym_tuple_expression, STATE 12425),
    (sym_named_expression, STATE 7969), (sym__named_expression_lhs, STATE 12752),
    (sym_return_statement, STATE 11814), (sym_delete_statement, STATE 11814),
    (sym_raise_statement, STATE 11814), (sym_pass_statement, STATE 11814),
    (sym_break_statement, STATE 11814), (sym_continue_statement, STATE 11814),
    (sym_extension_definition, STATE 927), (sym_mlir_region, STATE 927),
    (sym_comptime_statement, STATE 927), (sym_if_statement, STATE 927),
    (sym_match_statement, STATE 927), (sym_for_statement, STATE 927),
    (sym_while_statement, STATE 927), (sym_try_statement, STATE 927),
    (sym_with_statement, STATE 927), (sym_function_definition, STATE 927),
    (sym_global_statement, STATE 11814), (sym_nonlocal_statement, STATE 11814),
    (sym_exec_statement, STATE 11814), (sym_type_alias_statement, STATE 11814),
    (sym_parameterized_alias_statement, STATE 11814), (sym_class_definition, STATE 927),
    (sym_trait_definition, STATE 927), (sym_decorated_definition, STATE 927),
    (sym_decorator, STATE 3670), (sym_block, STATE 5755), (sym_pattern, STATE 8086),
    (sym_tuple_pattern, STATE 8101), (sym_list_pattern, STATE 8101),
    (sym_list_splat_pattern, STATE 6819), (sym_as_pattern, STATE 7969),
    (sym_expression, STATE 9883), (sym_primary_expression, STATE 7326),
    (sym_comptime_expression, STATE 7017), (sym_transfer_expression, STATE 7017),
    (sym_not_operator, STATE 7969), (sym_boolean_operator, STATE 7969),
    (sym_binary_operator, STATE 7017), (sym_unary_operator, STATE 7017),
    (sym_comparison_operator, STATE 7969), (sym_lambda, STATE 7969),
    (sym_assignment, STATE 12425), (sym_augmented_assignment, STATE 12425),
    (sym_pattern_list, STATE 8578), (sym_yield, STATE 12425), (sym_attribute, STATE 6836),
    (sym_subscript, STATE 6838), (sym_call, STATE 6845), (sym_mlir_type, STATE 7017),
    (sym_list, STATE 7017), (sym_set, STATE 7017), (sym_tuple, STATE 7017),
    (sym_dictionary, STATE 7017), (sym_struct_literal, STATE 7017),
    (sym_list_comprehension, STATE 7017), (sym_dictionary_comprehension, STATE 7017),
    (sym_set_comprehension, STATE 7017), (sym_generator_expression, STATE 7017),
    (sym_parenthesized_expression, STATE 7017), (sym_conditional_expression, STATE 7969),
    (sym_concatenated_string, STATE 7017), (sym_string, STATE 6751), (sym_await, STATE 7017),
    (aux_sym_module_repeat1, STATE 927), (aux_sym_decorated_definition_repeat1, STATE 3670),
    (sym_identifier, ACTIONS 9), (anon_sym_import, ACTIONS 11), (anon_sym_from, ACTIONS 13),
    (anon_sym_LPAREN, ACTIONS 15), (anon_sym_STAR, ACTIONS 17), (anon_sym_print, ACTIONS 19),
    (anon_sym_comptime, ACTIONS 99), (anon_sym_assert, ACTIONS 23),
    (anon_sym___comptime_assert, ACTIONS 25), (anon_sym_return, ACTIONS 27),
    (anon_sym_del, ACTIONS 29), (anon_sym_raise, ACTIONS 31), (anon_sym_pass, ACTIONS 33),
    (anon_sym_break, ACTIONS 35), (anon_sym_continue, ACTIONS 37),
    (anon_sym___extension, ACTIONS 101), (anon_sym___mlir_region, ACTIONS 103),
    (anon_sym_if, ACTIONS 105), (anon_sym_match, ACTIONS 107), (anon_sym_async, ACTIONS 109),
    (anon_sym_for, ACTIONS 111), (anon_sym_while, ACTIONS 113), (anon_sym_try, ACTIONS 115),
    (anon_sym_with, ACTIONS 117), (anon_sym_def, ACTIONS 119), (anon_sym_fn, ACTIONS 119),
    (anon_sym_LBRACK, ACTIONS 59), (anon_sym_LBRACE, ACTIONS 61), (anon_sym_global, ACTIONS 63),
    (anon_sym_nonlocal, ACTIONS 65), (anon_sym_exec, ACTIONS 67), (anon_sym_type, ACTIONS 69),
    (anon_sym_class, ACTIONS 121), (anon_sym_struct, ACTIONS 121), (anon_sym_mut, ACTIONS 73),
    (anon_sym_out, ACTIONS 73), (anon_sym_trait, ACTIONS 123), (anon_sym_AT, ACTIONS 77),
    (anon_sym_DASH, ACTIONS 79), (anon_sym_PLUS, ACTIONS 79), (anon_sym_ref, ACTIONS 81),
    (anon_sym_var, ACTIONS 81), (anon_sym_not, ACTIONS 83), (anon_sym_TILDE, ACTIONS 79),
    (anon_sym_lambda, ACTIONS 85), (anon_sym_yield, ACTIONS 87), (sym_ellipsis, ACTIONS 89),
    (anon_sym___mlir_type, ACTIONS 91), (sym_integer, ACTIONS 93), (sym_float, ACTIONS 89),
    (anon_sym_await, ACTIONS 95), (sym_true, ACTIONS 93), (sym_false, ACTIONS 93),
    (sym_none, ACTIONS 93), (sym_comment, ACTIONS 3), (sym_line_continuation, ACTIONS 3),
    (sym__dedent, ACTIONS 125), (sym_string_start, ACTIONS 97)]"

definition parse_table_618 :: "(nat \<times> nat) list" where "parse_table_618 = [
    (sym__statement, STATE 927), (sym__simple_statements, STATE 927),
    (sym_import_statement, STATE 11814), (sym_future_import_statement, STATE 11814),
    (sym_import_from_statement, STATE 11814), (sym_print_statement, STATE 11814),
    (sym_assert_statement, STATE 11814), (sym_comptime_assert_statement, STATE 11814),
    (sym_expression_statement, STATE 11814), (sym_tuple_expression, STATE 12425),
    (sym_named_expression, STATE 7969), (sym__named_expression_lhs, STATE 12752),
    (sym_return_statement, STATE 11814), (sym_delete_statement, STATE 11814),
    (sym_raise_statement, STATE 11814), (sym_pass_statement, STATE 11814),
    (sym_break_statement, STATE 11814), (sym_continue_statement, STATE 11814),
    (sym_extension_definition, STATE 927), (sym_mlir_region, STATE 927),
    (sym_comptime_statement, STATE 927), (sym_if_statement, STATE 927),
    (sym_match_statement, STATE 927), (sym_for_statement, STATE 927),
    (sym_while_statement, STATE 927), (sym_try_statement, STATE 927),
    (sym_with_statement, STATE 927), (sym_function_definition, STATE 927),
    (sym_global_statement, STATE 11814), (sym_nonlocal_statement, STATE 11814),
    (sym_exec_statement, STATE 11814), (sym_type_alias_statement, STATE 11814),
    (sym_parameterized_alias_statement, STATE 11814), (sym_class_definition, STATE 927),
    (sym_trait_definition, STATE 927), (sym_decorated_definition, STATE 927),
    (sym_decorator, STATE 3670), (sym_block, STATE 5756), (sym_pattern, STATE 8086),
    (sym_tuple_pattern, STATE 8101), (sym_list_pattern, STATE 8101),
    (sym_list_splat_pattern, STATE 6819), (sym_as_pattern, STATE 7969),
    (sym_expression, STATE 9883), (sym_primary_expression, STATE 7326),
    (sym_comptime_expression, STATE 7017), (sym_transfer_expression, STATE 7017),
    (sym_not_operator, STATE 7969), (sym_boolean_operator, STATE 7969),
    (sym_binary_operator, STATE 7017), (sym_unary_operator, STATE 7017),
    (sym_comparison_operator, STATE 7969), (sym_lambda, STATE 7969),
    (sym_assignment, STATE 12425), (sym_augmented_assignment, STATE 12425),
    (sym_pattern_list, STATE 8578), (sym_yield, STATE 12425), (sym_attribute, STATE 6836),
    (sym_subscript, STATE 6838), (sym_call, STATE 6845), (sym_mlir_type, STATE 7017),
    (sym_list, STATE 7017), (sym_set, STATE 7017), (sym_tuple, STATE 7017),
    (sym_dictionary, STATE 7017), (sym_struct_literal, STATE 7017),
    (sym_list_comprehension, STATE 7017), (sym_dictionary_comprehension, STATE 7017),
    (sym_set_comprehension, STATE 7017), (sym_generator_expression, STATE 7017),
    (sym_parenthesized_expression, STATE 7017), (sym_conditional_expression, STATE 7969),
    (sym_concatenated_string, STATE 7017), (sym_string, STATE 6751), (sym_await, STATE 7017),
    (aux_sym_module_repeat1, STATE 927), (aux_sym_decorated_definition_repeat1, STATE 3670),
    (sym_identifier, ACTIONS 9), (anon_sym_import, ACTIONS 11), (anon_sym_from, ACTIONS 13),
    (anon_sym_LPAREN, ACTIONS 15), (anon_sym_STAR, ACTIONS 17), (anon_sym_print, ACTIONS 19),
    (anon_sym_comptime, ACTIONS 99), (anon_sym_assert, ACTIONS 23),
    (anon_sym___comptime_assert, ACTIONS 25), (anon_sym_return, ACTIONS 27),
    (anon_sym_del, ACTIONS 29), (anon_sym_raise, ACTIONS 31), (anon_sym_pass, ACTIONS 33),
    (anon_sym_break, ACTIONS 35), (anon_sym_continue, ACTIONS 37),
    (anon_sym___extension, ACTIONS 101), (anon_sym___mlir_region, ACTIONS 103),
    (anon_sym_if, ACTIONS 105), (anon_sym_match, ACTIONS 107), (anon_sym_async, ACTIONS 109),
    (anon_sym_for, ACTIONS 111), (anon_sym_while, ACTIONS 113), (anon_sym_try, ACTIONS 115),
    (anon_sym_with, ACTIONS 117), (anon_sym_def, ACTIONS 119), (anon_sym_fn, ACTIONS 119),
    (anon_sym_LBRACK, ACTIONS 59), (anon_sym_LBRACE, ACTIONS 61), (anon_sym_global, ACTIONS 63),
    (anon_sym_nonlocal, ACTIONS 65), (anon_sym_exec, ACTIONS 67), (anon_sym_type, ACTIONS 69),
    (anon_sym_class, ACTIONS 121), (anon_sym_struct, ACTIONS 121), (anon_sym_mut, ACTIONS 73),
    (anon_sym_out, ACTIONS 73), (anon_sym_trait, ACTIONS 123), (anon_sym_AT, ACTIONS 77),
    (anon_sym_DASH, ACTIONS 79), (anon_sym_PLUS, ACTIONS 79), (anon_sym_ref, ACTIONS 81),
    (anon_sym_var, ACTIONS 81), (anon_sym_not, ACTIONS 83), (anon_sym_TILDE, ACTIONS 79),
    (anon_sym_lambda, ACTIONS 85), (anon_sym_yield, ACTIONS 87), (sym_ellipsis, ACTIONS 89),
    (anon_sym___mlir_type, ACTIONS 91), (sym_integer, ACTIONS 93), (sym_float, ACTIONS 89),
    (anon_sym_await, ACTIONS 95), (sym_true, ACTIONS 93), (sym_false, ACTIONS 93),
    (sym_none, ACTIONS 93), (sym_comment, ACTIONS 3), (sym_line_continuation, ACTIONS 3),
    (sym__dedent, ACTIONS 125), (sym_string_start, ACTIONS 97)]"

definition parse_table_619 :: "(nat \<times> nat) list" where "parse_table_619 = [
    (sym__statement, STATE 927), (sym__simple_statements, STATE 927),
    (sym_import_statement, STATE 11814), (sym_future_import_statement, STATE 11814),
    (sym_import_from_statement, STATE 11814), (sym_print_statement, STATE 11814),
    (sym_assert_statement, STATE 11814), (sym_comptime_assert_statement, STATE 11814),
    (sym_expression_statement, STATE 11814), (sym_tuple_expression, STATE 12425),
    (sym_named_expression, STATE 7969), (sym__named_expression_lhs, STATE 12752),
    (sym_return_statement, STATE 11814), (sym_delete_statement, STATE 11814),
    (sym_raise_statement, STATE 11814), (sym_pass_statement, STATE 11814),
    (sym_break_statement, STATE 11814), (sym_continue_statement, STATE 11814),
    (sym_extension_definition, STATE 927), (sym_mlir_region, STATE 927),
    (sym_comptime_statement, STATE 927), (sym_if_statement, STATE 927),
    (sym_match_statement, STATE 927), (sym_for_statement, STATE 927),
    (sym_while_statement, STATE 927), (sym_try_statement, STATE 927),
    (sym_with_statement, STATE 927), (sym_function_definition, STATE 927),
    (sym_global_statement, STATE 11814), (sym_nonlocal_statement, STATE 11814),
    (sym_exec_statement, STATE 11814), (sym_type_alias_statement, STATE 11814),
    (sym_parameterized_alias_statement, STATE 11814), (sym_class_definition, STATE 927),
    (sym_trait_definition, STATE 927), (sym_decorated_definition, STATE 927),
    (sym_decorator, STATE 3670), (sym_block, STATE 5757), (sym_pattern, STATE 8086),
    (sym_tuple_pattern, STATE 8101), (sym_list_pattern, STATE 8101),
    (sym_list_splat_pattern, STATE 6819), (sym_as_pattern, STATE 7969),
    (sym_expression, STATE 9883), (sym_primary_expression, STATE 7326),
    (sym_comptime_expression, STATE 7017), (sym_transfer_expression, STATE 7017),
    (sym_not_operator, STATE 7969), (sym_boolean_operator, STATE 7969),
    (sym_binary_operator, STATE 7017), (sym_unary_operator, STATE 7017),
    (sym_comparison_operator, STATE 7969), (sym_lambda, STATE 7969),
    (sym_assignment, STATE 12425), (sym_augmented_assignment, STATE 12425),
    (sym_pattern_list, STATE 8578), (sym_yield, STATE 12425), (sym_attribute, STATE 6836),
    (sym_subscript, STATE 6838), (sym_call, STATE 6845), (sym_mlir_type, STATE 7017),
    (sym_list, STATE 7017), (sym_set, STATE 7017), (sym_tuple, STATE 7017),
    (sym_dictionary, STATE 7017), (sym_struct_literal, STATE 7017),
    (sym_list_comprehension, STATE 7017), (sym_dictionary_comprehension, STATE 7017),
    (sym_set_comprehension, STATE 7017), (sym_generator_expression, STATE 7017),
    (sym_parenthesized_expression, STATE 7017), (sym_conditional_expression, STATE 7969),
    (sym_concatenated_string, STATE 7017), (sym_string, STATE 6751), (sym_await, STATE 7017),
    (aux_sym_module_repeat1, STATE 927), (aux_sym_decorated_definition_repeat1, STATE 3670),
    (sym_identifier, ACTIONS 9), (anon_sym_import, ACTIONS 11), (anon_sym_from, ACTIONS 13),
    (anon_sym_LPAREN, ACTIONS 15), (anon_sym_STAR, ACTIONS 17), (anon_sym_print, ACTIONS 19),
    (anon_sym_comptime, ACTIONS 99), (anon_sym_assert, ACTIONS 23),
    (anon_sym___comptime_assert, ACTIONS 25), (anon_sym_return, ACTIONS 27),
    (anon_sym_del, ACTIONS 29), (anon_sym_raise, ACTIONS 31), (anon_sym_pass, ACTIONS 33),
    (anon_sym_break, ACTIONS 35), (anon_sym_continue, ACTIONS 37),
    (anon_sym___extension, ACTIONS 101), (anon_sym___mlir_region, ACTIONS 103),
    (anon_sym_if, ACTIONS 105), (anon_sym_match, ACTIONS 107), (anon_sym_async, ACTIONS 109),
    (anon_sym_for, ACTIONS 111), (anon_sym_while, ACTIONS 113), (anon_sym_try, ACTIONS 115),
    (anon_sym_with, ACTIONS 117), (anon_sym_def, ACTIONS 119), (anon_sym_fn, ACTIONS 119),
    (anon_sym_LBRACK, ACTIONS 59), (anon_sym_LBRACE, ACTIONS 61), (anon_sym_global, ACTIONS 63),
    (anon_sym_nonlocal, ACTIONS 65), (anon_sym_exec, ACTIONS 67), (anon_sym_type, ACTIONS 69),
    (anon_sym_class, ACTIONS 121), (anon_sym_struct, ACTIONS 121), (anon_sym_mut, ACTIONS 73),
    (anon_sym_out, ACTIONS 73), (anon_sym_trait, ACTIONS 123), (anon_sym_AT, ACTIONS 77),
    (anon_sym_DASH, ACTIONS 79), (anon_sym_PLUS, ACTIONS 79), (anon_sym_ref, ACTIONS 81),
    (anon_sym_var, ACTIONS 81), (anon_sym_not, ACTIONS 83), (anon_sym_TILDE, ACTIONS 79),
    (anon_sym_lambda, ACTIONS 85), (anon_sym_yield, ACTIONS 87), (sym_ellipsis, ACTIONS 89),
    (anon_sym___mlir_type, ACTIONS 91), (sym_integer, ACTIONS 93), (sym_float, ACTIONS 89),
    (anon_sym_await, ACTIONS 95), (sym_true, ACTIONS 93), (sym_false, ACTIONS 93),
    (sym_none, ACTIONS 93), (sym_comment, ACTIONS 3), (sym_line_continuation, ACTIONS 3),
    (sym__dedent, ACTIONS 125), (sym_string_start, ACTIONS 97)]"

definition parse_table_620 :: "(nat \<times> nat) list" where "parse_table_620 = [
    (sym__statement, STATE 927), (sym__simple_statements, STATE 927),
    (sym_import_statement, STATE 11814), (sym_future_import_statement, STATE 11814),
    (sym_import_from_statement, STATE 11814), (sym_print_statement, STATE 11814),
    (sym_assert_statement, STATE 11814), (sym_comptime_assert_statement, STATE 11814),
    (sym_expression_statement, STATE 11814), (sym_tuple_expression, STATE 12425),
    (sym_named_expression, STATE 7969), (sym__named_expression_lhs, STATE 12752),
    (sym_return_statement, STATE 11814), (sym_delete_statement, STATE 11814),
    (sym_raise_statement, STATE 11814), (sym_pass_statement, STATE 11814),
    (sym_break_statement, STATE 11814), (sym_continue_statement, STATE 11814),
    (sym_extension_definition, STATE 927), (sym_mlir_region, STATE 927),
    (sym_comptime_statement, STATE 927), (sym_if_statement, STATE 927),
    (sym_match_statement, STATE 927), (sym_for_statement, STATE 927),
    (sym_while_statement, STATE 927), (sym_try_statement, STATE 927),
    (sym_with_statement, STATE 927), (sym_function_definition, STATE 927),
    (sym_global_statement, STATE 11814), (sym_nonlocal_statement, STATE 11814),
    (sym_exec_statement, STATE 11814), (sym_type_alias_statement, STATE 11814),
    (sym_parameterized_alias_statement, STATE 11814), (sym_class_definition, STATE 927),
    (sym_trait_definition, STATE 927), (sym_decorated_definition, STATE 927),
    (sym_decorator, STATE 3670), (sym_block, STATE 5760), (sym_pattern, STATE 8086),
    (sym_tuple_pattern, STATE 8101), (sym_list_pattern, STATE 8101),
    (sym_list_splat_pattern, STATE 6819), (sym_as_pattern, STATE 7969),
    (sym_expression, STATE 9883), (sym_primary_expression, STATE 7326),
    (sym_comptime_expression, STATE 7017), (sym_transfer_expression, STATE 7017),
    (sym_not_operator, STATE 7969), (sym_boolean_operator, STATE 7969),
    (sym_binary_operator, STATE 7017), (sym_unary_operator, STATE 7017),
    (sym_comparison_operator, STATE 7969), (sym_lambda, STATE 7969),
    (sym_assignment, STATE 12425), (sym_augmented_assignment, STATE 12425),
    (sym_pattern_list, STATE 8578), (sym_yield, STATE 12425), (sym_attribute, STATE 6836),
    (sym_subscript, STATE 6838), (sym_call, STATE 6845), (sym_mlir_type, STATE 7017),
    (sym_list, STATE 7017), (sym_set, STATE 7017), (sym_tuple, STATE 7017),
    (sym_dictionary, STATE 7017), (sym_struct_literal, STATE 7017),
    (sym_list_comprehension, STATE 7017), (sym_dictionary_comprehension, STATE 7017),
    (sym_set_comprehension, STATE 7017), (sym_generator_expression, STATE 7017),
    (sym_parenthesized_expression, STATE 7017), (sym_conditional_expression, STATE 7969),
    (sym_concatenated_string, STATE 7017), (sym_string, STATE 6751), (sym_await, STATE 7017),
    (aux_sym_module_repeat1, STATE 927), (aux_sym_decorated_definition_repeat1, STATE 3670),
    (sym_identifier, ACTIONS 9), (anon_sym_import, ACTIONS 11), (anon_sym_from, ACTIONS 13),
    (anon_sym_LPAREN, ACTIONS 15), (anon_sym_STAR, ACTIONS 17), (anon_sym_print, ACTIONS 19),
    (anon_sym_comptime, ACTIONS 99), (anon_sym_assert, ACTIONS 23),
    (anon_sym___comptime_assert, ACTIONS 25), (anon_sym_return, ACTIONS 27),
    (anon_sym_del, ACTIONS 29), (anon_sym_raise, ACTIONS 31), (anon_sym_pass, ACTIONS 33),
    (anon_sym_break, ACTIONS 35), (anon_sym_continue, ACTIONS 37),
    (anon_sym___extension, ACTIONS 101), (anon_sym___mlir_region, ACTIONS 103),
    (anon_sym_if, ACTIONS 105), (anon_sym_match, ACTIONS 107), (anon_sym_async, ACTIONS 109),
    (anon_sym_for, ACTIONS 111), (anon_sym_while, ACTIONS 113), (anon_sym_try, ACTIONS 115),
    (anon_sym_with, ACTIONS 117), (anon_sym_def, ACTIONS 119), (anon_sym_fn, ACTIONS 119),
    (anon_sym_LBRACK, ACTIONS 59), (anon_sym_LBRACE, ACTIONS 61), (anon_sym_global, ACTIONS 63),
    (anon_sym_nonlocal, ACTIONS 65), (anon_sym_exec, ACTIONS 67), (anon_sym_type, ACTIONS 69),
    (anon_sym_class, ACTIONS 121), (anon_sym_struct, ACTIONS 121), (anon_sym_mut, ACTIONS 73),
    (anon_sym_out, ACTIONS 73), (anon_sym_trait, ACTIONS 123), (anon_sym_AT, ACTIONS 77),
    (anon_sym_DASH, ACTIONS 79), (anon_sym_PLUS, ACTIONS 79), (anon_sym_ref, ACTIONS 81),
    (anon_sym_var, ACTIONS 81), (anon_sym_not, ACTIONS 83), (anon_sym_TILDE, ACTIONS 79),
    (anon_sym_lambda, ACTIONS 85), (anon_sym_yield, ACTIONS 87), (sym_ellipsis, ACTIONS 89),
    (anon_sym___mlir_type, ACTIONS 91), (sym_integer, ACTIONS 93), (sym_float, ACTIONS 89),
    (anon_sym_await, ACTIONS 95), (sym_true, ACTIONS 93), (sym_false, ACTIONS 93),
    (sym_none, ACTIONS 93), (sym_comment, ACTIONS 3), (sym_line_continuation, ACTIONS 3),
    (sym__dedent, ACTIONS 125), (sym_string_start, ACTIONS 97)]"

definition parse_table_621 :: "(nat \<times> nat) list" where "parse_table_621 = [
    (sym__statement, STATE 927), (sym__simple_statements, STATE 927),
    (sym_import_statement, STATE 11814), (sym_future_import_statement, STATE 11814),
    (sym_import_from_statement, STATE 11814), (sym_print_statement, STATE 11814),
    (sym_assert_statement, STATE 11814), (sym_comptime_assert_statement, STATE 11814),
    (sym_expression_statement, STATE 11814), (sym_tuple_expression, STATE 12425),
    (sym_named_expression, STATE 7969), (sym__named_expression_lhs, STATE 12752),
    (sym_return_statement, STATE 11814), (sym_delete_statement, STATE 11814),
    (sym_raise_statement, STATE 11814), (sym_pass_statement, STATE 11814),
    (sym_break_statement, STATE 11814), (sym_continue_statement, STATE 11814),
    (sym_extension_definition, STATE 927), (sym_mlir_region, STATE 927),
    (sym_comptime_statement, STATE 927), (sym_if_statement, STATE 927),
    (sym_match_statement, STATE 927), (sym_for_statement, STATE 927),
    (sym_while_statement, STATE 927), (sym_try_statement, STATE 927),
    (sym_with_statement, STATE 927), (sym_function_definition, STATE 927),
    (sym_global_statement, STATE 11814), (sym_nonlocal_statement, STATE 11814),
    (sym_exec_statement, STATE 11814), (sym_type_alias_statement, STATE 11814),
    (sym_parameterized_alias_statement, STATE 11814), (sym_class_definition, STATE 927),
    (sym_trait_definition, STATE 927), (sym_decorated_definition, STATE 927),
    (sym_decorator, STATE 3670), (sym_block, STATE 5761), (sym_pattern, STATE 8086),
    (sym_tuple_pattern, STATE 8101), (sym_list_pattern, STATE 8101),
    (sym_list_splat_pattern, STATE 6819), (sym_as_pattern, STATE 7969),
    (sym_expression, STATE 9883), (sym_primary_expression, STATE 7326),
    (sym_comptime_expression, STATE 7017), (sym_transfer_expression, STATE 7017),
    (sym_not_operator, STATE 7969), (sym_boolean_operator, STATE 7969),
    (sym_binary_operator, STATE 7017), (sym_unary_operator, STATE 7017),
    (sym_comparison_operator, STATE 7969), (sym_lambda, STATE 7969),
    (sym_assignment, STATE 12425), (sym_augmented_assignment, STATE 12425),
    (sym_pattern_list, STATE 8578), (sym_yield, STATE 12425), (sym_attribute, STATE 6836),
    (sym_subscript, STATE 6838), (sym_call, STATE 6845), (sym_mlir_type, STATE 7017),
    (sym_list, STATE 7017), (sym_set, STATE 7017), (sym_tuple, STATE 7017),
    (sym_dictionary, STATE 7017), (sym_struct_literal, STATE 7017),
    (sym_list_comprehension, STATE 7017), (sym_dictionary_comprehension, STATE 7017),
    (sym_set_comprehension, STATE 7017), (sym_generator_expression, STATE 7017),
    (sym_parenthesized_expression, STATE 7017), (sym_conditional_expression, STATE 7969),
    (sym_concatenated_string, STATE 7017), (sym_string, STATE 6751), (sym_await, STATE 7017),
    (aux_sym_module_repeat1, STATE 927), (aux_sym_decorated_definition_repeat1, STATE 3670),
    (sym_identifier, ACTIONS 9), (anon_sym_import, ACTIONS 11), (anon_sym_from, ACTIONS 13),
    (anon_sym_LPAREN, ACTIONS 15), (anon_sym_STAR, ACTIONS 17), (anon_sym_print, ACTIONS 19),
    (anon_sym_comptime, ACTIONS 99), (anon_sym_assert, ACTIONS 23),
    (anon_sym___comptime_assert, ACTIONS 25), (anon_sym_return, ACTIONS 27),
    (anon_sym_del, ACTIONS 29), (anon_sym_raise, ACTIONS 31), (anon_sym_pass, ACTIONS 33),
    (anon_sym_break, ACTIONS 35), (anon_sym_continue, ACTIONS 37),
    (anon_sym___extension, ACTIONS 101), (anon_sym___mlir_region, ACTIONS 103),
    (anon_sym_if, ACTIONS 105), (anon_sym_match, ACTIONS 107), (anon_sym_async, ACTIONS 109),
    (anon_sym_for, ACTIONS 111), (anon_sym_while, ACTIONS 113), (anon_sym_try, ACTIONS 115),
    (anon_sym_with, ACTIONS 117), (anon_sym_def, ACTIONS 119), (anon_sym_fn, ACTIONS 119),
    (anon_sym_LBRACK, ACTIONS 59), (anon_sym_LBRACE, ACTIONS 61), (anon_sym_global, ACTIONS 63),
    (anon_sym_nonlocal, ACTIONS 65), (anon_sym_exec, ACTIONS 67), (anon_sym_type, ACTIONS 69),
    (anon_sym_class, ACTIONS 121), (anon_sym_struct, ACTIONS 121), (anon_sym_mut, ACTIONS 73),
    (anon_sym_out, ACTIONS 73), (anon_sym_trait, ACTIONS 123), (anon_sym_AT, ACTIONS 77),
    (anon_sym_DASH, ACTIONS 79), (anon_sym_PLUS, ACTIONS 79), (anon_sym_ref, ACTIONS 81),
    (anon_sym_var, ACTIONS 81), (anon_sym_not, ACTIONS 83), (anon_sym_TILDE, ACTIONS 79),
    (anon_sym_lambda, ACTIONS 85), (anon_sym_yield, ACTIONS 87), (sym_ellipsis, ACTIONS 89),
    (anon_sym___mlir_type, ACTIONS 91), (sym_integer, ACTIONS 93), (sym_float, ACTIONS 89),
    (anon_sym_await, ACTIONS 95), (sym_true, ACTIONS 93), (sym_false, ACTIONS 93),
    (sym_none, ACTIONS 93), (sym_comment, ACTIONS 3), (sym_line_continuation, ACTIONS 3),
    (sym__dedent, ACTIONS 125), (sym_string_start, ACTIONS 97)]"

definition parse_table_622 :: "(nat \<times> nat) list" where "parse_table_622 = [
    (sym__statement, STATE 927), (sym__simple_statements, STATE 927),
    (sym_import_statement, STATE 11814), (sym_future_import_statement, STATE 11814),
    (sym_import_from_statement, STATE 11814), (sym_print_statement, STATE 11814),
    (sym_assert_statement, STATE 11814), (sym_comptime_assert_statement, STATE 11814),
    (sym_expression_statement, STATE 11814), (sym_tuple_expression, STATE 12425),
    (sym_named_expression, STATE 7969), (sym__named_expression_lhs, STATE 12752),
    (sym_return_statement, STATE 11814), (sym_delete_statement, STATE 11814),
    (sym_raise_statement, STATE 11814), (sym_pass_statement, STATE 11814),
    (sym_break_statement, STATE 11814), (sym_continue_statement, STATE 11814),
    (sym_extension_definition, STATE 927), (sym_mlir_region, STATE 927),
    (sym_comptime_statement, STATE 927), (sym_if_statement, STATE 927),
    (sym_match_statement, STATE 927), (sym_for_statement, STATE 927),
    (sym_while_statement, STATE 927), (sym_try_statement, STATE 927),
    (sym_with_statement, STATE 927), (sym_function_definition, STATE 927),
    (sym_global_statement, STATE 11814), (sym_nonlocal_statement, STATE 11814),
    (sym_exec_statement, STATE 11814), (sym_type_alias_statement, STATE 11814),
    (sym_parameterized_alias_statement, STATE 11814), (sym_class_definition, STATE 927),
    (sym_trait_definition, STATE 927), (sym_decorated_definition, STATE 927),
    (sym_decorator, STATE 3670), (sym_block, STATE 5763), (sym_pattern, STATE 8086),
    (sym_tuple_pattern, STATE 8101), (sym_list_pattern, STATE 8101),
    (sym_list_splat_pattern, STATE 6819), (sym_as_pattern, STATE 7969),
    (sym_expression, STATE 9883), (sym_primary_expression, STATE 7326),
    (sym_comptime_expression, STATE 7017), (sym_transfer_expression, STATE 7017),
    (sym_not_operator, STATE 7969), (sym_boolean_operator, STATE 7969),
    (sym_binary_operator, STATE 7017), (sym_unary_operator, STATE 7017),
    (sym_comparison_operator, STATE 7969), (sym_lambda, STATE 7969),
    (sym_assignment, STATE 12425), (sym_augmented_assignment, STATE 12425),
    (sym_pattern_list, STATE 8578), (sym_yield, STATE 12425), (sym_attribute, STATE 6836),
    (sym_subscript, STATE 6838), (sym_call, STATE 6845), (sym_mlir_type, STATE 7017),
    (sym_list, STATE 7017), (sym_set, STATE 7017), (sym_tuple, STATE 7017),
    (sym_dictionary, STATE 7017), (sym_struct_literal, STATE 7017),
    (sym_list_comprehension, STATE 7017), (sym_dictionary_comprehension, STATE 7017),
    (sym_set_comprehension, STATE 7017), (sym_generator_expression, STATE 7017),
    (sym_parenthesized_expression, STATE 7017), (sym_conditional_expression, STATE 7969),
    (sym_concatenated_string, STATE 7017), (sym_string, STATE 6751), (sym_await, STATE 7017),
    (aux_sym_module_repeat1, STATE 927), (aux_sym_decorated_definition_repeat1, STATE 3670),
    (sym_identifier, ACTIONS 9), (anon_sym_import, ACTIONS 11), (anon_sym_from, ACTIONS 13),
    (anon_sym_LPAREN, ACTIONS 15), (anon_sym_STAR, ACTIONS 17), (anon_sym_print, ACTIONS 19),
    (anon_sym_comptime, ACTIONS 99), (anon_sym_assert, ACTIONS 23),
    (anon_sym___comptime_assert, ACTIONS 25), (anon_sym_return, ACTIONS 27),
    (anon_sym_del, ACTIONS 29), (anon_sym_raise, ACTIONS 31), (anon_sym_pass, ACTIONS 33),
    (anon_sym_break, ACTIONS 35), (anon_sym_continue, ACTIONS 37),
    (anon_sym___extension, ACTIONS 101), (anon_sym___mlir_region, ACTIONS 103),
    (anon_sym_if, ACTIONS 105), (anon_sym_match, ACTIONS 107), (anon_sym_async, ACTIONS 109),
    (anon_sym_for, ACTIONS 111), (anon_sym_while, ACTIONS 113), (anon_sym_try, ACTIONS 115),
    (anon_sym_with, ACTIONS 117), (anon_sym_def, ACTIONS 119), (anon_sym_fn, ACTIONS 119),
    (anon_sym_LBRACK, ACTIONS 59), (anon_sym_LBRACE, ACTIONS 61), (anon_sym_global, ACTIONS 63),
    (anon_sym_nonlocal, ACTIONS 65), (anon_sym_exec, ACTIONS 67), (anon_sym_type, ACTIONS 69),
    (anon_sym_class, ACTIONS 121), (anon_sym_struct, ACTIONS 121), (anon_sym_mut, ACTIONS 73),
    (anon_sym_out, ACTIONS 73), (anon_sym_trait, ACTIONS 123), (anon_sym_AT, ACTIONS 77),
    (anon_sym_DASH, ACTIONS 79), (anon_sym_PLUS, ACTIONS 79), (anon_sym_ref, ACTIONS 81),
    (anon_sym_var, ACTIONS 81), (anon_sym_not, ACTIONS 83), (anon_sym_TILDE, ACTIONS 79),
    (anon_sym_lambda, ACTIONS 85), (anon_sym_yield, ACTIONS 87), (sym_ellipsis, ACTIONS 89),
    (anon_sym___mlir_type, ACTIONS 91), (sym_integer, ACTIONS 93), (sym_float, ACTIONS 89),
    (anon_sym_await, ACTIONS 95), (sym_true, ACTIONS 93), (sym_false, ACTIONS 93),
    (sym_none, ACTIONS 93), (sym_comment, ACTIONS 3), (sym_line_continuation, ACTIONS 3),
    (sym__dedent, ACTIONS 125), (sym_string_start, ACTIONS 97)]"

definition parse_table_623 :: "(nat \<times> nat) list" where "parse_table_623 = [
    (sym__statement, STATE 927), (sym__simple_statements, STATE 927),
    (sym_import_statement, STATE 11814), (sym_future_import_statement, STATE 11814),
    (sym_import_from_statement, STATE 11814), (sym_print_statement, STATE 11814),
    (sym_assert_statement, STATE 11814), (sym_comptime_assert_statement, STATE 11814),
    (sym_expression_statement, STATE 11814), (sym_tuple_expression, STATE 12425),
    (sym_named_expression, STATE 7969), (sym__named_expression_lhs, STATE 12752),
    (sym_return_statement, STATE 11814), (sym_delete_statement, STATE 11814),
    (sym_raise_statement, STATE 11814), (sym_pass_statement, STATE 11814),
    (sym_break_statement, STATE 11814), (sym_continue_statement, STATE 11814),
    (sym_extension_definition, STATE 927), (sym_mlir_region, STATE 927),
    (sym_comptime_statement, STATE 927), (sym_if_statement, STATE 927),
    (sym_match_statement, STATE 927), (sym_for_statement, STATE 927),
    (sym_while_statement, STATE 927), (sym_try_statement, STATE 927),
    (sym_with_statement, STATE 927), (sym_function_definition, STATE 927),
    (sym_global_statement, STATE 11814), (sym_nonlocal_statement, STATE 11814),
    (sym_exec_statement, STATE 11814), (sym_type_alias_statement, STATE 11814),
    (sym_parameterized_alias_statement, STATE 11814), (sym_class_definition, STATE 927),
    (sym_trait_definition, STATE 927), (sym_decorated_definition, STATE 927),
    (sym_decorator, STATE 3670), (sym_block, STATE 5770), (sym_pattern, STATE 8086),
    (sym_tuple_pattern, STATE 8101), (sym_list_pattern, STATE 8101),
    (sym_list_splat_pattern, STATE 6819), (sym_as_pattern, STATE 7969),
    (sym_expression, STATE 9883), (sym_primary_expression, STATE 7326),
    (sym_comptime_expression, STATE 7017), (sym_transfer_expression, STATE 7017),
    (sym_not_operator, STATE 7969), (sym_boolean_operator, STATE 7969),
    (sym_binary_operator, STATE 7017), (sym_unary_operator, STATE 7017),
    (sym_comparison_operator, STATE 7969), (sym_lambda, STATE 7969),
    (sym_assignment, STATE 12425), (sym_augmented_assignment, STATE 12425),
    (sym_pattern_list, STATE 8578), (sym_yield, STATE 12425), (sym_attribute, STATE 6836),
    (sym_subscript, STATE 6838), (sym_call, STATE 6845), (sym_mlir_type, STATE 7017),
    (sym_list, STATE 7017), (sym_set, STATE 7017), (sym_tuple, STATE 7017),
    (sym_dictionary, STATE 7017), (sym_struct_literal, STATE 7017),
    (sym_list_comprehension, STATE 7017), (sym_dictionary_comprehension, STATE 7017),
    (sym_set_comprehension, STATE 7017), (sym_generator_expression, STATE 7017),
    (sym_parenthesized_expression, STATE 7017), (sym_conditional_expression, STATE 7969),
    (sym_concatenated_string, STATE 7017), (sym_string, STATE 6751), (sym_await, STATE 7017),
    (aux_sym_module_repeat1, STATE 927), (aux_sym_decorated_definition_repeat1, STATE 3670),
    (sym_identifier, ACTIONS 9), (anon_sym_import, ACTIONS 11), (anon_sym_from, ACTIONS 13),
    (anon_sym_LPAREN, ACTIONS 15), (anon_sym_STAR, ACTIONS 17), (anon_sym_print, ACTIONS 19),
    (anon_sym_comptime, ACTIONS 99), (anon_sym_assert, ACTIONS 23),
    (anon_sym___comptime_assert, ACTIONS 25), (anon_sym_return, ACTIONS 27),
    (anon_sym_del, ACTIONS 29), (anon_sym_raise, ACTIONS 31), (anon_sym_pass, ACTIONS 33),
    (anon_sym_break, ACTIONS 35), (anon_sym_continue, ACTIONS 37),
    (anon_sym___extension, ACTIONS 101), (anon_sym___mlir_region, ACTIONS 103),
    (anon_sym_if, ACTIONS 105), (anon_sym_match, ACTIONS 107), (anon_sym_async, ACTIONS 109),
    (anon_sym_for, ACTIONS 111), (anon_sym_while, ACTIONS 113), (anon_sym_try, ACTIONS 115),
    (anon_sym_with, ACTIONS 117), (anon_sym_def, ACTIONS 119), (anon_sym_fn, ACTIONS 119),
    (anon_sym_LBRACK, ACTIONS 59), (anon_sym_LBRACE, ACTIONS 61), (anon_sym_global, ACTIONS 63),
    (anon_sym_nonlocal, ACTIONS 65), (anon_sym_exec, ACTIONS 67), (anon_sym_type, ACTIONS 69),
    (anon_sym_class, ACTIONS 121), (anon_sym_struct, ACTIONS 121), (anon_sym_mut, ACTIONS 73),
    (anon_sym_out, ACTIONS 73), (anon_sym_trait, ACTIONS 123), (anon_sym_AT, ACTIONS 77),
    (anon_sym_DASH, ACTIONS 79), (anon_sym_PLUS, ACTIONS 79), (anon_sym_ref, ACTIONS 81),
    (anon_sym_var, ACTIONS 81), (anon_sym_not, ACTIONS 83), (anon_sym_TILDE, ACTIONS 79),
    (anon_sym_lambda, ACTIONS 85), (anon_sym_yield, ACTIONS 87), (sym_ellipsis, ACTIONS 89),
    (anon_sym___mlir_type, ACTIONS 91), (sym_integer, ACTIONS 93), (sym_float, ACTIONS 89),
    (anon_sym_await, ACTIONS 95), (sym_true, ACTIONS 93), (sym_false, ACTIONS 93),
    (sym_none, ACTIONS 93), (sym_comment, ACTIONS 3), (sym_line_continuation, ACTIONS 3),
    (sym__dedent, ACTIONS 125), (sym_string_start, ACTIONS 97)]"

definition parse_table_624 :: "(nat \<times> nat) list" where "parse_table_624 = [
    (sym__statement, STATE 927), (sym__simple_statements, STATE 927),
    (sym_import_statement, STATE 11814), (sym_future_import_statement, STATE 11814),
    (sym_import_from_statement, STATE 11814), (sym_print_statement, STATE 11814),
    (sym_assert_statement, STATE 11814), (sym_comptime_assert_statement, STATE 11814),
    (sym_expression_statement, STATE 11814), (sym_tuple_expression, STATE 12425),
    (sym_named_expression, STATE 7969), (sym__named_expression_lhs, STATE 12752),
    (sym_return_statement, STATE 11814), (sym_delete_statement, STATE 11814),
    (sym_raise_statement, STATE 11814), (sym_pass_statement, STATE 11814),
    (sym_break_statement, STATE 11814), (sym_continue_statement, STATE 11814),
    (sym_extension_definition, STATE 927), (sym_mlir_region, STATE 927),
    (sym_comptime_statement, STATE 927), (sym_if_statement, STATE 927),
    (sym_match_statement, STATE 927), (sym_for_statement, STATE 927),
    (sym_while_statement, STATE 927), (sym_try_statement, STATE 927),
    (sym_with_statement, STATE 927), (sym_function_definition, STATE 927),
    (sym_global_statement, STATE 11814), (sym_nonlocal_statement, STATE 11814),
    (sym_exec_statement, STATE 11814), (sym_type_alias_statement, STATE 11814),
    (sym_parameterized_alias_statement, STATE 11814), (sym_class_definition, STATE 927),
    (sym_trait_definition, STATE 927), (sym_decorated_definition, STATE 927),
    (sym_decorator, STATE 3670), (sym_block, STATE 5773), (sym_pattern, STATE 8086),
    (sym_tuple_pattern, STATE 8101), (sym_list_pattern, STATE 8101),
    (sym_list_splat_pattern, STATE 6819), (sym_as_pattern, STATE 7969),
    (sym_expression, STATE 9883), (sym_primary_expression, STATE 7326),
    (sym_comptime_expression, STATE 7017), (sym_transfer_expression, STATE 7017),
    (sym_not_operator, STATE 7969), (sym_boolean_operator, STATE 7969),
    (sym_binary_operator, STATE 7017), (sym_unary_operator, STATE 7017),
    (sym_comparison_operator, STATE 7969), (sym_lambda, STATE 7969),
    (sym_assignment, STATE 12425), (sym_augmented_assignment, STATE 12425),
    (sym_pattern_list, STATE 8578), (sym_yield, STATE 12425), (sym_attribute, STATE 6836),
    (sym_subscript, STATE 6838), (sym_call, STATE 6845), (sym_mlir_type, STATE 7017),
    (sym_list, STATE 7017), (sym_set, STATE 7017), (sym_tuple, STATE 7017),
    (sym_dictionary, STATE 7017), (sym_struct_literal, STATE 7017),
    (sym_list_comprehension, STATE 7017), (sym_dictionary_comprehension, STATE 7017),
    (sym_set_comprehension, STATE 7017), (sym_generator_expression, STATE 7017),
    (sym_parenthesized_expression, STATE 7017), (sym_conditional_expression, STATE 7969),
    (sym_concatenated_string, STATE 7017), (sym_string, STATE 6751), (sym_await, STATE 7017),
    (aux_sym_module_repeat1, STATE 927), (aux_sym_decorated_definition_repeat1, STATE 3670),
    (sym_identifier, ACTIONS 9), (anon_sym_import, ACTIONS 11), (anon_sym_from, ACTIONS 13),
    (anon_sym_LPAREN, ACTIONS 15), (anon_sym_STAR, ACTIONS 17), (anon_sym_print, ACTIONS 19),
    (anon_sym_comptime, ACTIONS 99), (anon_sym_assert, ACTIONS 23),
    (anon_sym___comptime_assert, ACTIONS 25), (anon_sym_return, ACTIONS 27),
    (anon_sym_del, ACTIONS 29), (anon_sym_raise, ACTIONS 31), (anon_sym_pass, ACTIONS 33),
    (anon_sym_break, ACTIONS 35), (anon_sym_continue, ACTIONS 37),
    (anon_sym___extension, ACTIONS 101), (anon_sym___mlir_region, ACTIONS 103),
    (anon_sym_if, ACTIONS 105), (anon_sym_match, ACTIONS 107), (anon_sym_async, ACTIONS 109),
    (anon_sym_for, ACTIONS 111), (anon_sym_while, ACTIONS 113), (anon_sym_try, ACTIONS 115),
    (anon_sym_with, ACTIONS 117), (anon_sym_def, ACTIONS 119), (anon_sym_fn, ACTIONS 119),
    (anon_sym_LBRACK, ACTIONS 59), (anon_sym_LBRACE, ACTIONS 61), (anon_sym_global, ACTIONS 63),
    (anon_sym_nonlocal, ACTIONS 65), (anon_sym_exec, ACTIONS 67), (anon_sym_type, ACTIONS 69),
    (anon_sym_class, ACTIONS 121), (anon_sym_struct, ACTIONS 121), (anon_sym_mut, ACTIONS 73),
    (anon_sym_out, ACTIONS 73), (anon_sym_trait, ACTIONS 123), (anon_sym_AT, ACTIONS 77),
    (anon_sym_DASH, ACTIONS 79), (anon_sym_PLUS, ACTIONS 79), (anon_sym_ref, ACTIONS 81),
    (anon_sym_var, ACTIONS 81), (anon_sym_not, ACTIONS 83), (anon_sym_TILDE, ACTIONS 79),
    (anon_sym_lambda, ACTIONS 85), (anon_sym_yield, ACTIONS 87), (sym_ellipsis, ACTIONS 89),
    (anon_sym___mlir_type, ACTIONS 91), (sym_integer, ACTIONS 93), (sym_float, ACTIONS 89),
    (anon_sym_await, ACTIONS 95), (sym_true, ACTIONS 93), (sym_false, ACTIONS 93),
    (sym_none, ACTIONS 93), (sym_comment, ACTIONS 3), (sym_line_continuation, ACTIONS 3),
    (sym__dedent, ACTIONS 125), (sym_string_start, ACTIONS 97)]"

definition parse_table_625 :: "(nat \<times> nat) list" where "parse_table_625 = [
    (sym__statement, STATE 927), (sym__simple_statements, STATE 927),
    (sym_import_statement, STATE 11814), (sym_future_import_statement, STATE 11814),
    (sym_import_from_statement, STATE 11814), (sym_print_statement, STATE 11814),
    (sym_assert_statement, STATE 11814), (sym_comptime_assert_statement, STATE 11814),
    (sym_expression_statement, STATE 11814), (sym_tuple_expression, STATE 12425),
    (sym_named_expression, STATE 7969), (sym__named_expression_lhs, STATE 12752),
    (sym_return_statement, STATE 11814), (sym_delete_statement, STATE 11814),
    (sym_raise_statement, STATE 11814), (sym_pass_statement, STATE 11814),
    (sym_break_statement, STATE 11814), (sym_continue_statement, STATE 11814),
    (sym_extension_definition, STATE 927), (sym_mlir_region, STATE 927),
    (sym_comptime_statement, STATE 927), (sym_if_statement, STATE 927),
    (sym_match_statement, STATE 927), (sym_for_statement, STATE 927),
    (sym_while_statement, STATE 927), (sym_try_statement, STATE 927),
    (sym_with_statement, STATE 927), (sym_function_definition, STATE 927),
    (sym_global_statement, STATE 11814), (sym_nonlocal_statement, STATE 11814),
    (sym_exec_statement, STATE 11814), (sym_type_alias_statement, STATE 11814),
    (sym_parameterized_alias_statement, STATE 11814), (sym_class_definition, STATE 927),
    (sym_trait_definition, STATE 927), (sym_decorated_definition, STATE 927),
    (sym_decorator, STATE 3670), (sym_block, STATE 5782), (sym_pattern, STATE 8086),
    (sym_tuple_pattern, STATE 8101), (sym_list_pattern, STATE 8101),
    (sym_list_splat_pattern, STATE 6819), (sym_as_pattern, STATE 7969),
    (sym_expression, STATE 9883), (sym_primary_expression, STATE 7326),
    (sym_comptime_expression, STATE 7017), (sym_transfer_expression, STATE 7017),
    (sym_not_operator, STATE 7969), (sym_boolean_operator, STATE 7969),
    (sym_binary_operator, STATE 7017), (sym_unary_operator, STATE 7017),
    (sym_comparison_operator, STATE 7969), (sym_lambda, STATE 7969),
    (sym_assignment, STATE 12425), (sym_augmented_assignment, STATE 12425),
    (sym_pattern_list, STATE 8578), (sym_yield, STATE 12425), (sym_attribute, STATE 6836),
    (sym_subscript, STATE 6838), (sym_call, STATE 6845), (sym_mlir_type, STATE 7017),
    (sym_list, STATE 7017), (sym_set, STATE 7017), (sym_tuple, STATE 7017),
    (sym_dictionary, STATE 7017), (sym_struct_literal, STATE 7017),
    (sym_list_comprehension, STATE 7017), (sym_dictionary_comprehension, STATE 7017),
    (sym_set_comprehension, STATE 7017), (sym_generator_expression, STATE 7017),
    (sym_parenthesized_expression, STATE 7017), (sym_conditional_expression, STATE 7969),
    (sym_concatenated_string, STATE 7017), (sym_string, STATE 6751), (sym_await, STATE 7017),
    (aux_sym_module_repeat1, STATE 927), (aux_sym_decorated_definition_repeat1, STATE 3670),
    (sym_identifier, ACTIONS 9), (anon_sym_import, ACTIONS 11), (anon_sym_from, ACTIONS 13),
    (anon_sym_LPAREN, ACTIONS 15), (anon_sym_STAR, ACTIONS 17), (anon_sym_print, ACTIONS 19),
    (anon_sym_comptime, ACTIONS 99), (anon_sym_assert, ACTIONS 23),
    (anon_sym___comptime_assert, ACTIONS 25), (anon_sym_return, ACTIONS 27),
    (anon_sym_del, ACTIONS 29), (anon_sym_raise, ACTIONS 31), (anon_sym_pass, ACTIONS 33),
    (anon_sym_break, ACTIONS 35), (anon_sym_continue, ACTIONS 37),
    (anon_sym___extension, ACTIONS 101), (anon_sym___mlir_region, ACTIONS 103),
    (anon_sym_if, ACTIONS 105), (anon_sym_match, ACTIONS 107), (anon_sym_async, ACTIONS 109),
    (anon_sym_for, ACTIONS 111), (anon_sym_while, ACTIONS 113), (anon_sym_try, ACTIONS 115),
    (anon_sym_with, ACTIONS 117), (anon_sym_def, ACTIONS 119), (anon_sym_fn, ACTIONS 119),
    (anon_sym_LBRACK, ACTIONS 59), (anon_sym_LBRACE, ACTIONS 61), (anon_sym_global, ACTIONS 63),
    (anon_sym_nonlocal, ACTIONS 65), (anon_sym_exec, ACTIONS 67), (anon_sym_type, ACTIONS 69),
    (anon_sym_class, ACTIONS 121), (anon_sym_struct, ACTIONS 121), (anon_sym_mut, ACTIONS 73),
    (anon_sym_out, ACTIONS 73), (anon_sym_trait, ACTIONS 123), (anon_sym_AT, ACTIONS 77),
    (anon_sym_DASH, ACTIONS 79), (anon_sym_PLUS, ACTIONS 79), (anon_sym_ref, ACTIONS 81),
    (anon_sym_var, ACTIONS 81), (anon_sym_not, ACTIONS 83), (anon_sym_TILDE, ACTIONS 79),
    (anon_sym_lambda, ACTIONS 85), (anon_sym_yield, ACTIONS 87), (sym_ellipsis, ACTIONS 89),
    (anon_sym___mlir_type, ACTIONS 91), (sym_integer, ACTIONS 93), (sym_float, ACTIONS 89),
    (anon_sym_await, ACTIONS 95), (sym_true, ACTIONS 93), (sym_false, ACTIONS 93),
    (sym_none, ACTIONS 93), (sym_comment, ACTIONS 3), (sym_line_continuation, ACTIONS 3),
    (sym__dedent, ACTIONS 125), (sym_string_start, ACTIONS 97)]"

definition parse_table_626 :: "(nat \<times> nat) list" where "parse_table_626 = [
    (sym__statement, STATE 927), (sym__simple_statements, STATE 927),
    (sym_import_statement, STATE 11814), (sym_future_import_statement, STATE 11814),
    (sym_import_from_statement, STATE 11814), (sym_print_statement, STATE 11814),
    (sym_assert_statement, STATE 11814), (sym_comptime_assert_statement, STATE 11814),
    (sym_expression_statement, STATE 11814), (sym_tuple_expression, STATE 12425),
    (sym_named_expression, STATE 7969), (sym__named_expression_lhs, STATE 12752),
    (sym_return_statement, STATE 11814), (sym_delete_statement, STATE 11814),
    (sym_raise_statement, STATE 11814), (sym_pass_statement, STATE 11814),
    (sym_break_statement, STATE 11814), (sym_continue_statement, STATE 11814),
    (sym_extension_definition, STATE 927), (sym_mlir_region, STATE 927),
    (sym_comptime_statement, STATE 927), (sym_if_statement, STATE 927),
    (sym_match_statement, STATE 927), (sym_for_statement, STATE 927),
    (sym_while_statement, STATE 927), (sym_try_statement, STATE 927),
    (sym_with_statement, STATE 927), (sym_function_definition, STATE 927),
    (sym_global_statement, STATE 11814), (sym_nonlocal_statement, STATE 11814),
    (sym_exec_statement, STATE 11814), (sym_type_alias_statement, STATE 11814),
    (sym_parameterized_alias_statement, STATE 11814), (sym_class_definition, STATE 927),
    (sym_trait_definition, STATE 927), (sym_decorated_definition, STATE 927),
    (sym_decorator, STATE 3670), (sym_block, STATE 5784), (sym_pattern, STATE 8086),
    (sym_tuple_pattern, STATE 8101), (sym_list_pattern, STATE 8101),
    (sym_list_splat_pattern, STATE 6819), (sym_as_pattern, STATE 7969),
    (sym_expression, STATE 9883), (sym_primary_expression, STATE 7326),
    (sym_comptime_expression, STATE 7017), (sym_transfer_expression, STATE 7017),
    (sym_not_operator, STATE 7969), (sym_boolean_operator, STATE 7969),
    (sym_binary_operator, STATE 7017), (sym_unary_operator, STATE 7017),
    (sym_comparison_operator, STATE 7969), (sym_lambda, STATE 7969),
    (sym_assignment, STATE 12425), (sym_augmented_assignment, STATE 12425),
    (sym_pattern_list, STATE 8578), (sym_yield, STATE 12425), (sym_attribute, STATE 6836),
    (sym_subscript, STATE 6838), (sym_call, STATE 6845), (sym_mlir_type, STATE 7017),
    (sym_list, STATE 7017), (sym_set, STATE 7017), (sym_tuple, STATE 7017),
    (sym_dictionary, STATE 7017), (sym_struct_literal, STATE 7017),
    (sym_list_comprehension, STATE 7017), (sym_dictionary_comprehension, STATE 7017),
    (sym_set_comprehension, STATE 7017), (sym_generator_expression, STATE 7017),
    (sym_parenthesized_expression, STATE 7017), (sym_conditional_expression, STATE 7969),
    (sym_concatenated_string, STATE 7017), (sym_string, STATE 6751), (sym_await, STATE 7017),
    (aux_sym_module_repeat1, STATE 927), (aux_sym_decorated_definition_repeat1, STATE 3670),
    (sym_identifier, ACTIONS 9), (anon_sym_import, ACTIONS 11), (anon_sym_from, ACTIONS 13),
    (anon_sym_LPAREN, ACTIONS 15), (anon_sym_STAR, ACTIONS 17), (anon_sym_print, ACTIONS 19),
    (anon_sym_comptime, ACTIONS 99), (anon_sym_assert, ACTIONS 23),
    (anon_sym___comptime_assert, ACTIONS 25), (anon_sym_return, ACTIONS 27),
    (anon_sym_del, ACTIONS 29), (anon_sym_raise, ACTIONS 31), (anon_sym_pass, ACTIONS 33),
    (anon_sym_break, ACTIONS 35), (anon_sym_continue, ACTIONS 37),
    (anon_sym___extension, ACTIONS 101), (anon_sym___mlir_region, ACTIONS 103),
    (anon_sym_if, ACTIONS 105), (anon_sym_match, ACTIONS 107), (anon_sym_async, ACTIONS 109),
    (anon_sym_for, ACTIONS 111), (anon_sym_while, ACTIONS 113), (anon_sym_try, ACTIONS 115),
    (anon_sym_with, ACTIONS 117), (anon_sym_def, ACTIONS 119), (anon_sym_fn, ACTIONS 119),
    (anon_sym_LBRACK, ACTIONS 59), (anon_sym_LBRACE, ACTIONS 61), (anon_sym_global, ACTIONS 63),
    (anon_sym_nonlocal, ACTIONS 65), (anon_sym_exec, ACTIONS 67), (anon_sym_type, ACTIONS 69),
    (anon_sym_class, ACTIONS 121), (anon_sym_struct, ACTIONS 121), (anon_sym_mut, ACTIONS 73),
    (anon_sym_out, ACTIONS 73), (anon_sym_trait, ACTIONS 123), (anon_sym_AT, ACTIONS 77),
    (anon_sym_DASH, ACTIONS 79), (anon_sym_PLUS, ACTIONS 79), (anon_sym_ref, ACTIONS 81),
    (anon_sym_var, ACTIONS 81), (anon_sym_not, ACTIONS 83), (anon_sym_TILDE, ACTIONS 79),
    (anon_sym_lambda, ACTIONS 85), (anon_sym_yield, ACTIONS 87), (sym_ellipsis, ACTIONS 89),
    (anon_sym___mlir_type, ACTIONS 91), (sym_integer, ACTIONS 93), (sym_float, ACTIONS 89),
    (anon_sym_await, ACTIONS 95), (sym_true, ACTIONS 93), (sym_false, ACTIONS 93),
    (sym_none, ACTIONS 93), (sym_comment, ACTIONS 3), (sym_line_continuation, ACTIONS 3),
    (sym__dedent, ACTIONS 125), (sym_string_start, ACTIONS 97)]"

definition parse_table_627 :: "(nat \<times> nat) list" where "parse_table_627 = [
    (sym__statement, STATE 927), (sym__simple_statements, STATE 927),
    (sym_import_statement, STATE 11814), (sym_future_import_statement, STATE 11814),
    (sym_import_from_statement, STATE 11814), (sym_print_statement, STATE 11814),
    (sym_assert_statement, STATE 11814), (sym_comptime_assert_statement, STATE 11814),
    (sym_expression_statement, STATE 11814), (sym_tuple_expression, STATE 12425),
    (sym_named_expression, STATE 7969), (sym__named_expression_lhs, STATE 12752),
    (sym_return_statement, STATE 11814), (sym_delete_statement, STATE 11814),
    (sym_raise_statement, STATE 11814), (sym_pass_statement, STATE 11814),
    (sym_break_statement, STATE 11814), (sym_continue_statement, STATE 11814),
    (sym_extension_definition, STATE 927), (sym_mlir_region, STATE 927),
    (sym_comptime_statement, STATE 927), (sym_if_statement, STATE 927),
    (sym_match_statement, STATE 927), (sym_for_statement, STATE 927),
    (sym_while_statement, STATE 927), (sym_try_statement, STATE 927),
    (sym_with_statement, STATE 927), (sym_function_definition, STATE 927),
    (sym_global_statement, STATE 11814), (sym_nonlocal_statement, STATE 11814),
    (sym_exec_statement, STATE 11814), (sym_type_alias_statement, STATE 11814),
    (sym_parameterized_alias_statement, STATE 11814), (sym_class_definition, STATE 927),
    (sym_trait_definition, STATE 927), (sym_decorated_definition, STATE 927),
    (sym_decorator, STATE 3670), (sym_block, STATE 5787), (sym_pattern, STATE 8086),
    (sym_tuple_pattern, STATE 8101), (sym_list_pattern, STATE 8101),
    (sym_list_splat_pattern, STATE 6819), (sym_as_pattern, STATE 7969),
    (sym_expression, STATE 9883), (sym_primary_expression, STATE 7326),
    (sym_comptime_expression, STATE 7017), (sym_transfer_expression, STATE 7017),
    (sym_not_operator, STATE 7969), (sym_boolean_operator, STATE 7969),
    (sym_binary_operator, STATE 7017), (sym_unary_operator, STATE 7017),
    (sym_comparison_operator, STATE 7969), (sym_lambda, STATE 7969),
    (sym_assignment, STATE 12425), (sym_augmented_assignment, STATE 12425),
    (sym_pattern_list, STATE 8578), (sym_yield, STATE 12425), (sym_attribute, STATE 6836),
    (sym_subscript, STATE 6838), (sym_call, STATE 6845), (sym_mlir_type, STATE 7017),
    (sym_list, STATE 7017), (sym_set, STATE 7017), (sym_tuple, STATE 7017),
    (sym_dictionary, STATE 7017), (sym_struct_literal, STATE 7017),
    (sym_list_comprehension, STATE 7017), (sym_dictionary_comprehension, STATE 7017),
    (sym_set_comprehension, STATE 7017), (sym_generator_expression, STATE 7017),
    (sym_parenthesized_expression, STATE 7017), (sym_conditional_expression, STATE 7969),
    (sym_concatenated_string, STATE 7017), (sym_string, STATE 6751), (sym_await, STATE 7017),
    (aux_sym_module_repeat1, STATE 927), (aux_sym_decorated_definition_repeat1, STATE 3670),
    (sym_identifier, ACTIONS 9), (anon_sym_import, ACTIONS 11), (anon_sym_from, ACTIONS 13),
    (anon_sym_LPAREN, ACTIONS 15), (anon_sym_STAR, ACTIONS 17), (anon_sym_print, ACTIONS 19),
    (anon_sym_comptime, ACTIONS 99), (anon_sym_assert, ACTIONS 23),
    (anon_sym___comptime_assert, ACTIONS 25), (anon_sym_return, ACTIONS 27),
    (anon_sym_del, ACTIONS 29), (anon_sym_raise, ACTIONS 31), (anon_sym_pass, ACTIONS 33),
    (anon_sym_break, ACTIONS 35), (anon_sym_continue, ACTIONS 37),
    (anon_sym___extension, ACTIONS 101), (anon_sym___mlir_region, ACTIONS 103),
    (anon_sym_if, ACTIONS 105), (anon_sym_match, ACTIONS 107), (anon_sym_async, ACTIONS 109),
    (anon_sym_for, ACTIONS 111), (anon_sym_while, ACTIONS 113), (anon_sym_try, ACTIONS 115),
    (anon_sym_with, ACTIONS 117), (anon_sym_def, ACTIONS 119), (anon_sym_fn, ACTIONS 119),
    (anon_sym_LBRACK, ACTIONS 59), (anon_sym_LBRACE, ACTIONS 61), (anon_sym_global, ACTIONS 63),
    (anon_sym_nonlocal, ACTIONS 65), (anon_sym_exec, ACTIONS 67), (anon_sym_type, ACTIONS 69),
    (anon_sym_class, ACTIONS 121), (anon_sym_struct, ACTIONS 121), (anon_sym_mut, ACTIONS 73),
    (anon_sym_out, ACTIONS 73), (anon_sym_trait, ACTIONS 123), (anon_sym_AT, ACTIONS 77),
    (anon_sym_DASH, ACTIONS 79), (anon_sym_PLUS, ACTIONS 79), (anon_sym_ref, ACTIONS 81),
    (anon_sym_var, ACTIONS 81), (anon_sym_not, ACTIONS 83), (anon_sym_TILDE, ACTIONS 79),
    (anon_sym_lambda, ACTIONS 85), (anon_sym_yield, ACTIONS 87), (sym_ellipsis, ACTIONS 89),
    (anon_sym___mlir_type, ACTIONS 91), (sym_integer, ACTIONS 93), (sym_float, ACTIONS 89),
    (anon_sym_await, ACTIONS 95), (sym_true, ACTIONS 93), (sym_false, ACTIONS 93),
    (sym_none, ACTIONS 93), (sym_comment, ACTIONS 3), (sym_line_continuation, ACTIONS 3),
    (sym__dedent, ACTIONS 125), (sym_string_start, ACTIONS 97)]"

definition parse_table_628 :: "(nat \<times> nat) list" where "parse_table_628 = [
    (sym__statement, STATE 927), (sym__simple_statements, STATE 927),
    (sym_import_statement, STATE 11814), (sym_future_import_statement, STATE 11814),
    (sym_import_from_statement, STATE 11814), (sym_print_statement, STATE 11814),
    (sym_assert_statement, STATE 11814), (sym_comptime_assert_statement, STATE 11814),
    (sym_expression_statement, STATE 11814), (sym_tuple_expression, STATE 12425),
    (sym_named_expression, STATE 7969), (sym__named_expression_lhs, STATE 12752),
    (sym_return_statement, STATE 11814), (sym_delete_statement, STATE 11814),
    (sym_raise_statement, STATE 11814), (sym_pass_statement, STATE 11814),
    (sym_break_statement, STATE 11814), (sym_continue_statement, STATE 11814),
    (sym_extension_definition, STATE 927), (sym_mlir_region, STATE 927),
    (sym_comptime_statement, STATE 927), (sym_if_statement, STATE 927),
    (sym_match_statement, STATE 927), (sym_for_statement, STATE 927),
    (sym_while_statement, STATE 927), (sym_try_statement, STATE 927),
    (sym_with_statement, STATE 927), (sym_function_definition, STATE 927),
    (sym_global_statement, STATE 11814), (sym_nonlocal_statement, STATE 11814),
    (sym_exec_statement, STATE 11814), (sym_type_alias_statement, STATE 11814),
    (sym_parameterized_alias_statement, STATE 11814), (sym_class_definition, STATE 927),
    (sym_trait_definition, STATE 927), (sym_decorated_definition, STATE 927),
    (sym_decorator, STATE 3670), (sym_block, STATE 5791), (sym_pattern, STATE 8086),
    (sym_tuple_pattern, STATE 8101), (sym_list_pattern, STATE 8101),
    (sym_list_splat_pattern, STATE 6819), (sym_as_pattern, STATE 7969),
    (sym_expression, STATE 9883), (sym_primary_expression, STATE 7326),
    (sym_comptime_expression, STATE 7017), (sym_transfer_expression, STATE 7017),
    (sym_not_operator, STATE 7969), (sym_boolean_operator, STATE 7969),
    (sym_binary_operator, STATE 7017), (sym_unary_operator, STATE 7017),
    (sym_comparison_operator, STATE 7969), (sym_lambda, STATE 7969),
    (sym_assignment, STATE 12425), (sym_augmented_assignment, STATE 12425),
    (sym_pattern_list, STATE 8578), (sym_yield, STATE 12425), (sym_attribute, STATE 6836),
    (sym_subscript, STATE 6838), (sym_call, STATE 6845), (sym_mlir_type, STATE 7017),
    (sym_list, STATE 7017), (sym_set, STATE 7017), (sym_tuple, STATE 7017),
    (sym_dictionary, STATE 7017), (sym_struct_literal, STATE 7017),
    (sym_list_comprehension, STATE 7017), (sym_dictionary_comprehension, STATE 7017),
    (sym_set_comprehension, STATE 7017), (sym_generator_expression, STATE 7017),
    (sym_parenthesized_expression, STATE 7017), (sym_conditional_expression, STATE 7969),
    (sym_concatenated_string, STATE 7017), (sym_string, STATE 6751), (sym_await, STATE 7017),
    (aux_sym_module_repeat1, STATE 927), (aux_sym_decorated_definition_repeat1, STATE 3670),
    (sym_identifier, ACTIONS 9), (anon_sym_import, ACTIONS 11), (anon_sym_from, ACTIONS 13),
    (anon_sym_LPAREN, ACTIONS 15), (anon_sym_STAR, ACTIONS 17), (anon_sym_print, ACTIONS 19),
    (anon_sym_comptime, ACTIONS 99), (anon_sym_assert, ACTIONS 23),
    (anon_sym___comptime_assert, ACTIONS 25), (anon_sym_return, ACTIONS 27),
    (anon_sym_del, ACTIONS 29), (anon_sym_raise, ACTIONS 31), (anon_sym_pass, ACTIONS 33),
    (anon_sym_break, ACTIONS 35), (anon_sym_continue, ACTIONS 37),
    (anon_sym___extension, ACTIONS 101), (anon_sym___mlir_region, ACTIONS 103),
    (anon_sym_if, ACTIONS 105), (anon_sym_match, ACTIONS 107), (anon_sym_async, ACTIONS 109),
    (anon_sym_for, ACTIONS 111), (anon_sym_while, ACTIONS 113), (anon_sym_try, ACTIONS 115),
    (anon_sym_with, ACTIONS 117), (anon_sym_def, ACTIONS 119), (anon_sym_fn, ACTIONS 119),
    (anon_sym_LBRACK, ACTIONS 59), (anon_sym_LBRACE, ACTIONS 61), (anon_sym_global, ACTIONS 63),
    (anon_sym_nonlocal, ACTIONS 65), (anon_sym_exec, ACTIONS 67), (anon_sym_type, ACTIONS 69),
    (anon_sym_class, ACTIONS 121), (anon_sym_struct, ACTIONS 121), (anon_sym_mut, ACTIONS 73),
    (anon_sym_out, ACTIONS 73), (anon_sym_trait, ACTIONS 123), (anon_sym_AT, ACTIONS 77),
    (anon_sym_DASH, ACTIONS 79), (anon_sym_PLUS, ACTIONS 79), (anon_sym_ref, ACTIONS 81),
    (anon_sym_var, ACTIONS 81), (anon_sym_not, ACTIONS 83), (anon_sym_TILDE, ACTIONS 79),
    (anon_sym_lambda, ACTIONS 85), (anon_sym_yield, ACTIONS 87), (sym_ellipsis, ACTIONS 89),
    (anon_sym___mlir_type, ACTIONS 91), (sym_integer, ACTIONS 93), (sym_float, ACTIONS 89),
    (anon_sym_await, ACTIONS 95), (sym_true, ACTIONS 93), (sym_false, ACTIONS 93),
    (sym_none, ACTIONS 93), (sym_comment, ACTIONS 3), (sym_line_continuation, ACTIONS 3),
    (sym__dedent, ACTIONS 125), (sym_string_start, ACTIONS 97)]"

definition parse_table_629 :: "(nat \<times> nat) list" where "parse_table_629 = [
    (sym__statement, STATE 927), (sym__simple_statements, STATE 927),
    (sym_import_statement, STATE 11814), (sym_future_import_statement, STATE 11814),
    (sym_import_from_statement, STATE 11814), (sym_print_statement, STATE 11814),
    (sym_assert_statement, STATE 11814), (sym_comptime_assert_statement, STATE 11814),
    (sym_expression_statement, STATE 11814), (sym_tuple_expression, STATE 12425),
    (sym_named_expression, STATE 7969), (sym__named_expression_lhs, STATE 12752),
    (sym_return_statement, STATE 11814), (sym_delete_statement, STATE 11814),
    (sym_raise_statement, STATE 11814), (sym_pass_statement, STATE 11814),
    (sym_break_statement, STATE 11814), (sym_continue_statement, STATE 11814),
    (sym_extension_definition, STATE 927), (sym_mlir_region, STATE 927),
    (sym_comptime_statement, STATE 927), (sym_if_statement, STATE 927),
    (sym_match_statement, STATE 927), (sym_for_statement, STATE 927),
    (sym_while_statement, STATE 927), (sym_try_statement, STATE 927),
    (sym_with_statement, STATE 927), (sym_function_definition, STATE 927),
    (sym_global_statement, STATE 11814), (sym_nonlocal_statement, STATE 11814),
    (sym_exec_statement, STATE 11814), (sym_type_alias_statement, STATE 11814),
    (sym_parameterized_alias_statement, STATE 11814), (sym_class_definition, STATE 927),
    (sym_trait_definition, STATE 927), (sym_decorated_definition, STATE 927),
    (sym_decorator, STATE 3670), (sym_block, STATE 5793), (sym_pattern, STATE 8086),
    (sym_tuple_pattern, STATE 8101), (sym_list_pattern, STATE 8101),
    (sym_list_splat_pattern, STATE 6819), (sym_as_pattern, STATE 7969),
    (sym_expression, STATE 9883), (sym_primary_expression, STATE 7326),
    (sym_comptime_expression, STATE 7017), (sym_transfer_expression, STATE 7017),
    (sym_not_operator, STATE 7969), (sym_boolean_operator, STATE 7969),
    (sym_binary_operator, STATE 7017), (sym_unary_operator, STATE 7017),
    (sym_comparison_operator, STATE 7969), (sym_lambda, STATE 7969),
    (sym_assignment, STATE 12425), (sym_augmented_assignment, STATE 12425),
    (sym_pattern_list, STATE 8578), (sym_yield, STATE 12425), (sym_attribute, STATE 6836),
    (sym_subscript, STATE 6838), (sym_call, STATE 6845), (sym_mlir_type, STATE 7017),
    (sym_list, STATE 7017), (sym_set, STATE 7017), (sym_tuple, STATE 7017),
    (sym_dictionary, STATE 7017), (sym_struct_literal, STATE 7017),
    (sym_list_comprehension, STATE 7017), (sym_dictionary_comprehension, STATE 7017),
    (sym_set_comprehension, STATE 7017), (sym_generator_expression, STATE 7017),
    (sym_parenthesized_expression, STATE 7017), (sym_conditional_expression, STATE 7969),
    (sym_concatenated_string, STATE 7017), (sym_string, STATE 6751), (sym_await, STATE 7017),
    (aux_sym_module_repeat1, STATE 927), (aux_sym_decorated_definition_repeat1, STATE 3670),
    (sym_identifier, ACTIONS 9), (anon_sym_import, ACTIONS 11), (anon_sym_from, ACTIONS 13),
    (anon_sym_LPAREN, ACTIONS 15), (anon_sym_STAR, ACTIONS 17), (anon_sym_print, ACTIONS 19),
    (anon_sym_comptime, ACTIONS 99), (anon_sym_assert, ACTIONS 23),
    (anon_sym___comptime_assert, ACTIONS 25), (anon_sym_return, ACTIONS 27),
    (anon_sym_del, ACTIONS 29), (anon_sym_raise, ACTIONS 31), (anon_sym_pass, ACTIONS 33),
    (anon_sym_break, ACTIONS 35), (anon_sym_continue, ACTIONS 37),
    (anon_sym___extension, ACTIONS 101), (anon_sym___mlir_region, ACTIONS 103),
    (anon_sym_if, ACTIONS 105), (anon_sym_match, ACTIONS 107), (anon_sym_async, ACTIONS 109),
    (anon_sym_for, ACTIONS 111), (anon_sym_while, ACTIONS 113), (anon_sym_try, ACTIONS 115),
    (anon_sym_with, ACTIONS 117), (anon_sym_def, ACTIONS 119), (anon_sym_fn, ACTIONS 119),
    (anon_sym_LBRACK, ACTIONS 59), (anon_sym_LBRACE, ACTIONS 61), (anon_sym_global, ACTIONS 63),
    (anon_sym_nonlocal, ACTIONS 65), (anon_sym_exec, ACTIONS 67), (anon_sym_type, ACTIONS 69),
    (anon_sym_class, ACTIONS 121), (anon_sym_struct, ACTIONS 121), (anon_sym_mut, ACTIONS 73),
    (anon_sym_out, ACTIONS 73), (anon_sym_trait, ACTIONS 123), (anon_sym_AT, ACTIONS 77),
    (anon_sym_DASH, ACTIONS 79), (anon_sym_PLUS, ACTIONS 79), (anon_sym_ref, ACTIONS 81),
    (anon_sym_var, ACTIONS 81), (anon_sym_not, ACTIONS 83), (anon_sym_TILDE, ACTIONS 79),
    (anon_sym_lambda, ACTIONS 85), (anon_sym_yield, ACTIONS 87), (sym_ellipsis, ACTIONS 89),
    (anon_sym___mlir_type, ACTIONS 91), (sym_integer, ACTIONS 93), (sym_float, ACTIONS 89),
    (anon_sym_await, ACTIONS 95), (sym_true, ACTIONS 93), (sym_false, ACTIONS 93),
    (sym_none, ACTIONS 93), (sym_comment, ACTIONS 3), (sym_line_continuation, ACTIONS 3),
    (sym__dedent, ACTIONS 125), (sym_string_start, ACTIONS 97)]"

definition parse_table_630 :: "(nat \<times> nat) list" where "parse_table_630 = [
    (sym__statement, STATE 927), (sym__simple_statements, STATE 927),
    (sym_import_statement, STATE 11814), (sym_future_import_statement, STATE 11814),
    (sym_import_from_statement, STATE 11814), (sym_print_statement, STATE 11814),
    (sym_assert_statement, STATE 11814), (sym_comptime_assert_statement, STATE 11814),
    (sym_expression_statement, STATE 11814), (sym_tuple_expression, STATE 12425),
    (sym_named_expression, STATE 7969), (sym__named_expression_lhs, STATE 12752),
    (sym_return_statement, STATE 11814), (sym_delete_statement, STATE 11814),
    (sym_raise_statement, STATE 11814), (sym_pass_statement, STATE 11814),
    (sym_break_statement, STATE 11814), (sym_continue_statement, STATE 11814),
    (sym_extension_definition, STATE 927), (sym_mlir_region, STATE 927),
    (sym_comptime_statement, STATE 927), (sym_if_statement, STATE 927),
    (sym_match_statement, STATE 927), (sym_for_statement, STATE 927),
    (sym_while_statement, STATE 927), (sym_try_statement, STATE 927),
    (sym_with_statement, STATE 927), (sym_function_definition, STATE 927),
    (sym_global_statement, STATE 11814), (sym_nonlocal_statement, STATE 11814),
    (sym_exec_statement, STATE 11814), (sym_type_alias_statement, STATE 11814),
    (sym_parameterized_alias_statement, STATE 11814), (sym_class_definition, STATE 927),
    (sym_trait_definition, STATE 927), (sym_decorated_definition, STATE 927),
    (sym_decorator, STATE 3670), (sym_block, STATE 5805), (sym_pattern, STATE 8086),
    (sym_tuple_pattern, STATE 8101), (sym_list_pattern, STATE 8101),
    (sym_list_splat_pattern, STATE 6819), (sym_as_pattern, STATE 7969),
    (sym_expression, STATE 9883), (sym_primary_expression, STATE 7326),
    (sym_comptime_expression, STATE 7017), (sym_transfer_expression, STATE 7017),
    (sym_not_operator, STATE 7969), (sym_boolean_operator, STATE 7969),
    (sym_binary_operator, STATE 7017), (sym_unary_operator, STATE 7017),
    (sym_comparison_operator, STATE 7969), (sym_lambda, STATE 7969),
    (sym_assignment, STATE 12425), (sym_augmented_assignment, STATE 12425),
    (sym_pattern_list, STATE 8578), (sym_yield, STATE 12425), (sym_attribute, STATE 6836),
    (sym_subscript, STATE 6838), (sym_call, STATE 6845), (sym_mlir_type, STATE 7017),
    (sym_list, STATE 7017), (sym_set, STATE 7017), (sym_tuple, STATE 7017),
    (sym_dictionary, STATE 7017), (sym_struct_literal, STATE 7017),
    (sym_list_comprehension, STATE 7017), (sym_dictionary_comprehension, STATE 7017),
    (sym_set_comprehension, STATE 7017), (sym_generator_expression, STATE 7017),
    (sym_parenthesized_expression, STATE 7017), (sym_conditional_expression, STATE 7969),
    (sym_concatenated_string, STATE 7017), (sym_string, STATE 6751), (sym_await, STATE 7017),
    (aux_sym_module_repeat1, STATE 927), (aux_sym_decorated_definition_repeat1, STATE 3670),
    (sym_identifier, ACTIONS 9), (anon_sym_import, ACTIONS 11), (anon_sym_from, ACTIONS 13),
    (anon_sym_LPAREN, ACTIONS 15), (anon_sym_STAR, ACTIONS 17), (anon_sym_print, ACTIONS 19),
    (anon_sym_comptime, ACTIONS 99), (anon_sym_assert, ACTIONS 23),
    (anon_sym___comptime_assert, ACTIONS 25), (anon_sym_return, ACTIONS 27),
    (anon_sym_del, ACTIONS 29), (anon_sym_raise, ACTIONS 31), (anon_sym_pass, ACTIONS 33),
    (anon_sym_break, ACTIONS 35), (anon_sym_continue, ACTIONS 37),
    (anon_sym___extension, ACTIONS 101), (anon_sym___mlir_region, ACTIONS 103),
    (anon_sym_if, ACTIONS 105), (anon_sym_match, ACTIONS 107), (anon_sym_async, ACTIONS 109),
    (anon_sym_for, ACTIONS 111), (anon_sym_while, ACTIONS 113), (anon_sym_try, ACTIONS 115),
    (anon_sym_with, ACTIONS 117), (anon_sym_def, ACTIONS 119), (anon_sym_fn, ACTIONS 119),
    (anon_sym_LBRACK, ACTIONS 59), (anon_sym_LBRACE, ACTIONS 61), (anon_sym_global, ACTIONS 63),
    (anon_sym_nonlocal, ACTIONS 65), (anon_sym_exec, ACTIONS 67), (anon_sym_type, ACTIONS 69),
    (anon_sym_class, ACTIONS 121), (anon_sym_struct, ACTIONS 121), (anon_sym_mut, ACTIONS 73),
    (anon_sym_out, ACTIONS 73), (anon_sym_trait, ACTIONS 123), (anon_sym_AT, ACTIONS 77),
    (anon_sym_DASH, ACTIONS 79), (anon_sym_PLUS, ACTIONS 79), (anon_sym_ref, ACTIONS 81),
    (anon_sym_var, ACTIONS 81), (anon_sym_not, ACTIONS 83), (anon_sym_TILDE, ACTIONS 79),
    (anon_sym_lambda, ACTIONS 85), (anon_sym_yield, ACTIONS 87), (sym_ellipsis, ACTIONS 89),
    (anon_sym___mlir_type, ACTIONS 91), (sym_integer, ACTIONS 93), (sym_float, ACTIONS 89),
    (anon_sym_await, ACTIONS 95), (sym_true, ACTIONS 93), (sym_false, ACTIONS 93),
    (sym_none, ACTIONS 93), (sym_comment, ACTIONS 3), (sym_line_continuation, ACTIONS 3),
    (sym__dedent, ACTIONS 125), (sym_string_start, ACTIONS 97)]"

definition parse_table_631 :: "(nat \<times> nat) list" where "parse_table_631 = [
    (sym__statement, STATE 927), (sym__simple_statements, STATE 927),
    (sym_import_statement, STATE 11814), (sym_future_import_statement, STATE 11814),
    (sym_import_from_statement, STATE 11814), (sym_print_statement, STATE 11814),
    (sym_assert_statement, STATE 11814), (sym_comptime_assert_statement, STATE 11814),
    (sym_expression_statement, STATE 11814), (sym_tuple_expression, STATE 12425),
    (sym_named_expression, STATE 7969), (sym__named_expression_lhs, STATE 12752),
    (sym_return_statement, STATE 11814), (sym_delete_statement, STATE 11814),
    (sym_raise_statement, STATE 11814), (sym_pass_statement, STATE 11814),
    (sym_break_statement, STATE 11814), (sym_continue_statement, STATE 11814),
    (sym_extension_definition, STATE 927), (sym_mlir_region, STATE 927),
    (sym_comptime_statement, STATE 927), (sym_if_statement, STATE 927),
    (sym_match_statement, STATE 927), (sym_for_statement, STATE 927),
    (sym_while_statement, STATE 927), (sym_try_statement, STATE 927),
    (sym_with_statement, STATE 927), (sym_function_definition, STATE 927),
    (sym_global_statement, STATE 11814), (sym_nonlocal_statement, STATE 11814),
    (sym_exec_statement, STATE 11814), (sym_type_alias_statement, STATE 11814),
    (sym_parameterized_alias_statement, STATE 11814), (sym_class_definition, STATE 927),
    (sym_trait_definition, STATE 927), (sym_decorated_definition, STATE 927),
    (sym_decorator, STATE 3670), (sym_block, STATE 5807), (sym_pattern, STATE 8086),
    (sym_tuple_pattern, STATE 8101), (sym_list_pattern, STATE 8101),
    (sym_list_splat_pattern, STATE 6819), (sym_as_pattern, STATE 7969),
    (sym_expression, STATE 9883), (sym_primary_expression, STATE 7326),
    (sym_comptime_expression, STATE 7017), (sym_transfer_expression, STATE 7017),
    (sym_not_operator, STATE 7969), (sym_boolean_operator, STATE 7969),
    (sym_binary_operator, STATE 7017), (sym_unary_operator, STATE 7017),
    (sym_comparison_operator, STATE 7969), (sym_lambda, STATE 7969),
    (sym_assignment, STATE 12425), (sym_augmented_assignment, STATE 12425),
    (sym_pattern_list, STATE 8578), (sym_yield, STATE 12425), (sym_attribute, STATE 6836),
    (sym_subscript, STATE 6838), (sym_call, STATE 6845), (sym_mlir_type, STATE 7017),
    (sym_list, STATE 7017), (sym_set, STATE 7017), (sym_tuple, STATE 7017),
    (sym_dictionary, STATE 7017), (sym_struct_literal, STATE 7017),
    (sym_list_comprehension, STATE 7017), (sym_dictionary_comprehension, STATE 7017),
    (sym_set_comprehension, STATE 7017), (sym_generator_expression, STATE 7017),
    (sym_parenthesized_expression, STATE 7017), (sym_conditional_expression, STATE 7969),
    (sym_concatenated_string, STATE 7017), (sym_string, STATE 6751), (sym_await, STATE 7017),
    (aux_sym_module_repeat1, STATE 927), (aux_sym_decorated_definition_repeat1, STATE 3670),
    (sym_identifier, ACTIONS 9), (anon_sym_import, ACTIONS 11), (anon_sym_from, ACTIONS 13),
    (anon_sym_LPAREN, ACTIONS 15), (anon_sym_STAR, ACTIONS 17), (anon_sym_print, ACTIONS 19),
    (anon_sym_comptime, ACTIONS 99), (anon_sym_assert, ACTIONS 23),
    (anon_sym___comptime_assert, ACTIONS 25), (anon_sym_return, ACTIONS 27),
    (anon_sym_del, ACTIONS 29), (anon_sym_raise, ACTIONS 31), (anon_sym_pass, ACTIONS 33),
    (anon_sym_break, ACTIONS 35), (anon_sym_continue, ACTIONS 37),
    (anon_sym___extension, ACTIONS 101), (anon_sym___mlir_region, ACTIONS 103),
    (anon_sym_if, ACTIONS 105), (anon_sym_match, ACTIONS 107), (anon_sym_async, ACTIONS 109),
    (anon_sym_for, ACTIONS 111), (anon_sym_while, ACTIONS 113), (anon_sym_try, ACTIONS 115),
    (anon_sym_with, ACTIONS 117), (anon_sym_def, ACTIONS 119), (anon_sym_fn, ACTIONS 119),
    (anon_sym_LBRACK, ACTIONS 59), (anon_sym_LBRACE, ACTIONS 61), (anon_sym_global, ACTIONS 63),
    (anon_sym_nonlocal, ACTIONS 65), (anon_sym_exec, ACTIONS 67), (anon_sym_type, ACTIONS 69),
    (anon_sym_class, ACTIONS 121), (anon_sym_struct, ACTIONS 121), (anon_sym_mut, ACTIONS 73),
    (anon_sym_out, ACTIONS 73), (anon_sym_trait, ACTIONS 123), (anon_sym_AT, ACTIONS 77),
    (anon_sym_DASH, ACTIONS 79), (anon_sym_PLUS, ACTIONS 79), (anon_sym_ref, ACTIONS 81),
    (anon_sym_var, ACTIONS 81), (anon_sym_not, ACTIONS 83), (anon_sym_TILDE, ACTIONS 79),
    (anon_sym_lambda, ACTIONS 85), (anon_sym_yield, ACTIONS 87), (sym_ellipsis, ACTIONS 89),
    (anon_sym___mlir_type, ACTIONS 91), (sym_integer, ACTIONS 93), (sym_float, ACTIONS 89),
    (anon_sym_await, ACTIONS 95), (sym_true, ACTIONS 93), (sym_false, ACTIONS 93),
    (sym_none, ACTIONS 93), (sym_comment, ACTIONS 3), (sym_line_continuation, ACTIONS 3),
    (sym__dedent, ACTIONS 125), (sym_string_start, ACTIONS 97)]"

definition parse_table_632 :: "(nat \<times> nat) list" where "parse_table_632 = [
    (sym__statement, STATE 927), (sym__simple_statements, STATE 927),
    (sym_import_statement, STATE 11814), (sym_future_import_statement, STATE 11814),
    (sym_import_from_statement, STATE 11814), (sym_print_statement, STATE 11814),
    (sym_assert_statement, STATE 11814), (sym_comptime_assert_statement, STATE 11814),
    (sym_expression_statement, STATE 11814), (sym_tuple_expression, STATE 12425),
    (sym_named_expression, STATE 7969), (sym__named_expression_lhs, STATE 12752),
    (sym_return_statement, STATE 11814), (sym_delete_statement, STATE 11814),
    (sym_raise_statement, STATE 11814), (sym_pass_statement, STATE 11814),
    (sym_break_statement, STATE 11814), (sym_continue_statement, STATE 11814),
    (sym_extension_definition, STATE 927), (sym_mlir_region, STATE 927),
    (sym_comptime_statement, STATE 927), (sym_if_statement, STATE 927),
    (sym_match_statement, STATE 927), (sym_for_statement, STATE 927),
    (sym_while_statement, STATE 927), (sym_try_statement, STATE 927),
    (sym_with_statement, STATE 927), (sym_function_definition, STATE 927),
    (sym_global_statement, STATE 11814), (sym_nonlocal_statement, STATE 11814),
    (sym_exec_statement, STATE 11814), (sym_type_alias_statement, STATE 11814),
    (sym_parameterized_alias_statement, STATE 11814), (sym_class_definition, STATE 927),
    (sym_trait_definition, STATE 927), (sym_decorated_definition, STATE 927),
    (sym_decorator, STATE 3670), (sym_block, STATE 5816), (sym_pattern, STATE 8086),
    (sym_tuple_pattern, STATE 8101), (sym_list_pattern, STATE 8101),
    (sym_list_splat_pattern, STATE 6819), (sym_as_pattern, STATE 7969),
    (sym_expression, STATE 9883), (sym_primary_expression, STATE 7326),
    (sym_comptime_expression, STATE 7017), (sym_transfer_expression, STATE 7017),
    (sym_not_operator, STATE 7969), (sym_boolean_operator, STATE 7969),
    (sym_binary_operator, STATE 7017), (sym_unary_operator, STATE 7017),
    (sym_comparison_operator, STATE 7969), (sym_lambda, STATE 7969),
    (sym_assignment, STATE 12425), (sym_augmented_assignment, STATE 12425),
    (sym_pattern_list, STATE 8578), (sym_yield, STATE 12425), (sym_attribute, STATE 6836),
    (sym_subscript, STATE 6838), (sym_call, STATE 6845), (sym_mlir_type, STATE 7017),
    (sym_list, STATE 7017), (sym_set, STATE 7017), (sym_tuple, STATE 7017),
    (sym_dictionary, STATE 7017), (sym_struct_literal, STATE 7017),
    (sym_list_comprehension, STATE 7017), (sym_dictionary_comprehension, STATE 7017),
    (sym_set_comprehension, STATE 7017), (sym_generator_expression, STATE 7017),
    (sym_parenthesized_expression, STATE 7017), (sym_conditional_expression, STATE 7969),
    (sym_concatenated_string, STATE 7017), (sym_string, STATE 6751), (sym_await, STATE 7017),
    (aux_sym_module_repeat1, STATE 927), (aux_sym_decorated_definition_repeat1, STATE 3670),
    (sym_identifier, ACTIONS 9), (anon_sym_import, ACTIONS 11), (anon_sym_from, ACTIONS 13),
    (anon_sym_LPAREN, ACTIONS 15), (anon_sym_STAR, ACTIONS 17), (anon_sym_print, ACTIONS 19),
    (anon_sym_comptime, ACTIONS 99), (anon_sym_assert, ACTIONS 23),
    (anon_sym___comptime_assert, ACTIONS 25), (anon_sym_return, ACTIONS 27),
    (anon_sym_del, ACTIONS 29), (anon_sym_raise, ACTIONS 31), (anon_sym_pass, ACTIONS 33),
    (anon_sym_break, ACTIONS 35), (anon_sym_continue, ACTIONS 37),
    (anon_sym___extension, ACTIONS 101), (anon_sym___mlir_region, ACTIONS 103),
    (anon_sym_if, ACTIONS 105), (anon_sym_match, ACTIONS 107), (anon_sym_async, ACTIONS 109),
    (anon_sym_for, ACTIONS 111), (anon_sym_while, ACTIONS 113), (anon_sym_try, ACTIONS 115),
    (anon_sym_with, ACTIONS 117), (anon_sym_def, ACTIONS 119), (anon_sym_fn, ACTIONS 119),
    (anon_sym_LBRACK, ACTIONS 59), (anon_sym_LBRACE, ACTIONS 61), (anon_sym_global, ACTIONS 63),
    (anon_sym_nonlocal, ACTIONS 65), (anon_sym_exec, ACTIONS 67), (anon_sym_type, ACTIONS 69),
    (anon_sym_class, ACTIONS 121), (anon_sym_struct, ACTIONS 121), (anon_sym_mut, ACTIONS 73),
    (anon_sym_out, ACTIONS 73), (anon_sym_trait, ACTIONS 123), (anon_sym_AT, ACTIONS 77),
    (anon_sym_DASH, ACTIONS 79), (anon_sym_PLUS, ACTIONS 79), (anon_sym_ref, ACTIONS 81),
    (anon_sym_var, ACTIONS 81), (anon_sym_not, ACTIONS 83), (anon_sym_TILDE, ACTIONS 79),
    (anon_sym_lambda, ACTIONS 85), (anon_sym_yield, ACTIONS 87), (sym_ellipsis, ACTIONS 89),
    (anon_sym___mlir_type, ACTIONS 91), (sym_integer, ACTIONS 93), (sym_float, ACTIONS 89),
    (anon_sym_await, ACTIONS 95), (sym_true, ACTIONS 93), (sym_false, ACTIONS 93),
    (sym_none, ACTIONS 93), (sym_comment, ACTIONS 3), (sym_line_continuation, ACTIONS 3),
    (sym__dedent, ACTIONS 125), (sym_string_start, ACTIONS 97)]"

definition parse_table_633 :: "(nat \<times> nat) list" where "parse_table_633 = [
    (sym__statement, STATE 927), (sym__simple_statements, STATE 927),
    (sym_import_statement, STATE 11814), (sym_future_import_statement, STATE 11814),
    (sym_import_from_statement, STATE 11814), (sym_print_statement, STATE 11814),
    (sym_assert_statement, STATE 11814), (sym_comptime_assert_statement, STATE 11814),
    (sym_expression_statement, STATE 11814), (sym_tuple_expression, STATE 12425),
    (sym_named_expression, STATE 7969), (sym__named_expression_lhs, STATE 12752),
    (sym_return_statement, STATE 11814), (sym_delete_statement, STATE 11814),
    (sym_raise_statement, STATE 11814), (sym_pass_statement, STATE 11814),
    (sym_break_statement, STATE 11814), (sym_continue_statement, STATE 11814),
    (sym_extension_definition, STATE 927), (sym_mlir_region, STATE 927),
    (sym_comptime_statement, STATE 927), (sym_if_statement, STATE 927),
    (sym_match_statement, STATE 927), (sym_for_statement, STATE 927),
    (sym_while_statement, STATE 927), (sym_try_statement, STATE 927),
    (sym_with_statement, STATE 927), (sym_function_definition, STATE 927),
    (sym_global_statement, STATE 11814), (sym_nonlocal_statement, STATE 11814),
    (sym_exec_statement, STATE 11814), (sym_type_alias_statement, STATE 11814),
    (sym_parameterized_alias_statement, STATE 11814), (sym_class_definition, STATE 927),
    (sym_trait_definition, STATE 927), (sym_decorated_definition, STATE 927),
    (sym_decorator, STATE 3670), (sym_block, STATE 5818), (sym_pattern, STATE 8086),
    (sym_tuple_pattern, STATE 8101), (sym_list_pattern, STATE 8101),
    (sym_list_splat_pattern, STATE 6819), (sym_as_pattern, STATE 7969),
    (sym_expression, STATE 9883), (sym_primary_expression, STATE 7326),
    (sym_comptime_expression, STATE 7017), (sym_transfer_expression, STATE 7017),
    (sym_not_operator, STATE 7969), (sym_boolean_operator, STATE 7969),
    (sym_binary_operator, STATE 7017), (sym_unary_operator, STATE 7017),
    (sym_comparison_operator, STATE 7969), (sym_lambda, STATE 7969),
    (sym_assignment, STATE 12425), (sym_augmented_assignment, STATE 12425),
    (sym_pattern_list, STATE 8578), (sym_yield, STATE 12425), (sym_attribute, STATE 6836),
    (sym_subscript, STATE 6838), (sym_call, STATE 6845), (sym_mlir_type, STATE 7017),
    (sym_list, STATE 7017), (sym_set, STATE 7017), (sym_tuple, STATE 7017),
    (sym_dictionary, STATE 7017), (sym_struct_literal, STATE 7017),
    (sym_list_comprehension, STATE 7017), (sym_dictionary_comprehension, STATE 7017),
    (sym_set_comprehension, STATE 7017), (sym_generator_expression, STATE 7017),
    (sym_parenthesized_expression, STATE 7017), (sym_conditional_expression, STATE 7969),
    (sym_concatenated_string, STATE 7017), (sym_string, STATE 6751), (sym_await, STATE 7017),
    (aux_sym_module_repeat1, STATE 927), (aux_sym_decorated_definition_repeat1, STATE 3670),
    (sym_identifier, ACTIONS 9), (anon_sym_import, ACTIONS 11), (anon_sym_from, ACTIONS 13),
    (anon_sym_LPAREN, ACTIONS 15), (anon_sym_STAR, ACTIONS 17), (anon_sym_print, ACTIONS 19),
    (anon_sym_comptime, ACTIONS 99), (anon_sym_assert, ACTIONS 23),
    (anon_sym___comptime_assert, ACTIONS 25), (anon_sym_return, ACTIONS 27),
    (anon_sym_del, ACTIONS 29), (anon_sym_raise, ACTIONS 31), (anon_sym_pass, ACTIONS 33),
    (anon_sym_break, ACTIONS 35), (anon_sym_continue, ACTIONS 37),
    (anon_sym___extension, ACTIONS 101), (anon_sym___mlir_region, ACTIONS 103),
    (anon_sym_if, ACTIONS 105), (anon_sym_match, ACTIONS 107), (anon_sym_async, ACTIONS 109),
    (anon_sym_for, ACTIONS 111), (anon_sym_while, ACTIONS 113), (anon_sym_try, ACTIONS 115),
    (anon_sym_with, ACTIONS 117), (anon_sym_def, ACTIONS 119), (anon_sym_fn, ACTIONS 119),
    (anon_sym_LBRACK, ACTIONS 59), (anon_sym_LBRACE, ACTIONS 61), (anon_sym_global, ACTIONS 63),
    (anon_sym_nonlocal, ACTIONS 65), (anon_sym_exec, ACTIONS 67), (anon_sym_type, ACTIONS 69),
    (anon_sym_class, ACTIONS 121), (anon_sym_struct, ACTIONS 121), (anon_sym_mut, ACTIONS 73),
    (anon_sym_out, ACTIONS 73), (anon_sym_trait, ACTIONS 123), (anon_sym_AT, ACTIONS 77),
    (anon_sym_DASH, ACTIONS 79), (anon_sym_PLUS, ACTIONS 79), (anon_sym_ref, ACTIONS 81),
    (anon_sym_var, ACTIONS 81), (anon_sym_not, ACTIONS 83), (anon_sym_TILDE, ACTIONS 79),
    (anon_sym_lambda, ACTIONS 85), (anon_sym_yield, ACTIONS 87), (sym_ellipsis, ACTIONS 89),
    (anon_sym___mlir_type, ACTIONS 91), (sym_integer, ACTIONS 93), (sym_float, ACTIONS 89),
    (anon_sym_await, ACTIONS 95), (sym_true, ACTIONS 93), (sym_false, ACTIONS 93),
    (sym_none, ACTIONS 93), (sym_comment, ACTIONS 3), (sym_line_continuation, ACTIONS 3),
    (sym__dedent, ACTIONS 125), (sym_string_start, ACTIONS 97)]"

definition parse_table_634 :: "(nat \<times> nat) list" where "parse_table_634 = [
    (sym__statement, STATE 927), (sym__simple_statements, STATE 927),
    (sym_import_statement, STATE 11814), (sym_future_import_statement, STATE 11814),
    (sym_import_from_statement, STATE 11814), (sym_print_statement, STATE 11814),
    (sym_assert_statement, STATE 11814), (sym_comptime_assert_statement, STATE 11814),
    (sym_expression_statement, STATE 11814), (sym_tuple_expression, STATE 12425),
    (sym_named_expression, STATE 7969), (sym__named_expression_lhs, STATE 12752),
    (sym_return_statement, STATE 11814), (sym_delete_statement, STATE 11814),
    (sym_raise_statement, STATE 11814), (sym_pass_statement, STATE 11814),
    (sym_break_statement, STATE 11814), (sym_continue_statement, STATE 11814),
    (sym_extension_definition, STATE 927), (sym_mlir_region, STATE 927),
    (sym_comptime_statement, STATE 927), (sym_if_statement, STATE 927),
    (sym_match_statement, STATE 927), (sym_for_statement, STATE 927),
    (sym_while_statement, STATE 927), (sym_try_statement, STATE 927),
    (sym_with_statement, STATE 927), (sym_function_definition, STATE 927),
    (sym_global_statement, STATE 11814), (sym_nonlocal_statement, STATE 11814),
    (sym_exec_statement, STATE 11814), (sym_type_alias_statement, STATE 11814),
    (sym_parameterized_alias_statement, STATE 11814), (sym_class_definition, STATE 927),
    (sym_trait_definition, STATE 927), (sym_decorated_definition, STATE 927),
    (sym_decorator, STATE 3670), (sym_block, STATE 5825), (sym_pattern, STATE 8086),
    (sym_tuple_pattern, STATE 8101), (sym_list_pattern, STATE 8101),
    (sym_list_splat_pattern, STATE 6819), (sym_as_pattern, STATE 7969),
    (sym_expression, STATE 9883), (sym_primary_expression, STATE 7326),
    (sym_comptime_expression, STATE 7017), (sym_transfer_expression, STATE 7017),
    (sym_not_operator, STATE 7969), (sym_boolean_operator, STATE 7969),
    (sym_binary_operator, STATE 7017), (sym_unary_operator, STATE 7017),
    (sym_comparison_operator, STATE 7969), (sym_lambda, STATE 7969),
    (sym_assignment, STATE 12425), (sym_augmented_assignment, STATE 12425),
    (sym_pattern_list, STATE 8578), (sym_yield, STATE 12425), (sym_attribute, STATE 6836),
    (sym_subscript, STATE 6838), (sym_call, STATE 6845), (sym_mlir_type, STATE 7017),
    (sym_list, STATE 7017), (sym_set, STATE 7017), (sym_tuple, STATE 7017),
    (sym_dictionary, STATE 7017), (sym_struct_literal, STATE 7017),
    (sym_list_comprehension, STATE 7017), (sym_dictionary_comprehension, STATE 7017),
    (sym_set_comprehension, STATE 7017), (sym_generator_expression, STATE 7017),
    (sym_parenthesized_expression, STATE 7017), (sym_conditional_expression, STATE 7969),
    (sym_concatenated_string, STATE 7017), (sym_string, STATE 6751), (sym_await, STATE 7017),
    (aux_sym_module_repeat1, STATE 927), (aux_sym_decorated_definition_repeat1, STATE 3670),
    (sym_identifier, ACTIONS 9), (anon_sym_import, ACTIONS 11), (anon_sym_from, ACTIONS 13),
    (anon_sym_LPAREN, ACTIONS 15), (anon_sym_STAR, ACTIONS 17), (anon_sym_print, ACTIONS 19),
    (anon_sym_comptime, ACTIONS 99), (anon_sym_assert, ACTIONS 23),
    (anon_sym___comptime_assert, ACTIONS 25), (anon_sym_return, ACTIONS 27),
    (anon_sym_del, ACTIONS 29), (anon_sym_raise, ACTIONS 31), (anon_sym_pass, ACTIONS 33),
    (anon_sym_break, ACTIONS 35), (anon_sym_continue, ACTIONS 37),
    (anon_sym___extension, ACTIONS 101), (anon_sym___mlir_region, ACTIONS 103),
    (anon_sym_if, ACTIONS 105), (anon_sym_match, ACTIONS 107), (anon_sym_async, ACTIONS 109),
    (anon_sym_for, ACTIONS 111), (anon_sym_while, ACTIONS 113), (anon_sym_try, ACTIONS 115),
    (anon_sym_with, ACTIONS 117), (anon_sym_def, ACTIONS 119), (anon_sym_fn, ACTIONS 119),
    (anon_sym_LBRACK, ACTIONS 59), (anon_sym_LBRACE, ACTIONS 61), (anon_sym_global, ACTIONS 63),
    (anon_sym_nonlocal, ACTIONS 65), (anon_sym_exec, ACTIONS 67), (anon_sym_type, ACTIONS 69),
    (anon_sym_class, ACTIONS 121), (anon_sym_struct, ACTIONS 121), (anon_sym_mut, ACTIONS 73),
    (anon_sym_out, ACTIONS 73), (anon_sym_trait, ACTIONS 123), (anon_sym_AT, ACTIONS 77),
    (anon_sym_DASH, ACTIONS 79), (anon_sym_PLUS, ACTIONS 79), (anon_sym_ref, ACTIONS 81),
    (anon_sym_var, ACTIONS 81), (anon_sym_not, ACTIONS 83), (anon_sym_TILDE, ACTIONS 79),
    (anon_sym_lambda, ACTIONS 85), (anon_sym_yield, ACTIONS 87), (sym_ellipsis, ACTIONS 89),
    (anon_sym___mlir_type, ACTIONS 91), (sym_integer, ACTIONS 93), (sym_float, ACTIONS 89),
    (anon_sym_await, ACTIONS 95), (sym_true, ACTIONS 93), (sym_false, ACTIONS 93),
    (sym_none, ACTIONS 93), (sym_comment, ACTIONS 3), (sym_line_continuation, ACTIONS 3),
    (sym__dedent, ACTIONS 125), (sym_string_start, ACTIONS 97)]"

definition parse_table_635 :: "(nat \<times> nat) list" where "parse_table_635 = [
    (sym__statement, STATE 927), (sym__simple_statements, STATE 927),
    (sym_import_statement, STATE 11814), (sym_future_import_statement, STATE 11814),
    (sym_import_from_statement, STATE 11814), (sym_print_statement, STATE 11814),
    (sym_assert_statement, STATE 11814), (sym_comptime_assert_statement, STATE 11814),
    (sym_expression_statement, STATE 11814), (sym_tuple_expression, STATE 12425),
    (sym_named_expression, STATE 7969), (sym__named_expression_lhs, STATE 12752),
    (sym_return_statement, STATE 11814), (sym_delete_statement, STATE 11814),
    (sym_raise_statement, STATE 11814), (sym_pass_statement, STATE 11814),
    (sym_break_statement, STATE 11814), (sym_continue_statement, STATE 11814),
    (sym_extension_definition, STATE 927), (sym_mlir_region, STATE 927),
    (sym_comptime_statement, STATE 927), (sym_if_statement, STATE 927),
    (sym_match_statement, STATE 927), (sym_for_statement, STATE 927),
    (sym_while_statement, STATE 927), (sym_try_statement, STATE 927),
    (sym_with_statement, STATE 927), (sym_function_definition, STATE 927),
    (sym_global_statement, STATE 11814), (sym_nonlocal_statement, STATE 11814),
    (sym_exec_statement, STATE 11814), (sym_type_alias_statement, STATE 11814),
    (sym_parameterized_alias_statement, STATE 11814), (sym_class_definition, STATE 927),
    (sym_trait_definition, STATE 927), (sym_decorated_definition, STATE 927),
    (sym_decorator, STATE 3670), (sym_block, STATE 5829), (sym_pattern, STATE 8086),
    (sym_tuple_pattern, STATE 8101), (sym_list_pattern, STATE 8101),
    (sym_list_splat_pattern, STATE 6819), (sym_as_pattern, STATE 7969),
    (sym_expression, STATE 9883), (sym_primary_expression, STATE 7326),
    (sym_comptime_expression, STATE 7017), (sym_transfer_expression, STATE 7017),
    (sym_not_operator, STATE 7969), (sym_boolean_operator, STATE 7969),
    (sym_binary_operator, STATE 7017), (sym_unary_operator, STATE 7017),
    (sym_comparison_operator, STATE 7969), (sym_lambda, STATE 7969),
    (sym_assignment, STATE 12425), (sym_augmented_assignment, STATE 12425),
    (sym_pattern_list, STATE 8578), (sym_yield, STATE 12425), (sym_attribute, STATE 6836),
    (sym_subscript, STATE 6838), (sym_call, STATE 6845), (sym_mlir_type, STATE 7017),
    (sym_list, STATE 7017), (sym_set, STATE 7017), (sym_tuple, STATE 7017),
    (sym_dictionary, STATE 7017), (sym_struct_literal, STATE 7017),
    (sym_list_comprehension, STATE 7017), (sym_dictionary_comprehension, STATE 7017),
    (sym_set_comprehension, STATE 7017), (sym_generator_expression, STATE 7017),
    (sym_parenthesized_expression, STATE 7017), (sym_conditional_expression, STATE 7969),
    (sym_concatenated_string, STATE 7017), (sym_string, STATE 6751), (sym_await, STATE 7017),
    (aux_sym_module_repeat1, STATE 927), (aux_sym_decorated_definition_repeat1, STATE 3670),
    (sym_identifier, ACTIONS 9), (anon_sym_import, ACTIONS 11), (anon_sym_from, ACTIONS 13),
    (anon_sym_LPAREN, ACTIONS 15), (anon_sym_STAR, ACTIONS 17), (anon_sym_print, ACTIONS 19),
    (anon_sym_comptime, ACTIONS 99), (anon_sym_assert, ACTIONS 23),
    (anon_sym___comptime_assert, ACTIONS 25), (anon_sym_return, ACTIONS 27),
    (anon_sym_del, ACTIONS 29), (anon_sym_raise, ACTIONS 31), (anon_sym_pass, ACTIONS 33),
    (anon_sym_break, ACTIONS 35), (anon_sym_continue, ACTIONS 37),
    (anon_sym___extension, ACTIONS 101), (anon_sym___mlir_region, ACTIONS 103),
    (anon_sym_if, ACTIONS 105), (anon_sym_match, ACTIONS 107), (anon_sym_async, ACTIONS 109),
    (anon_sym_for, ACTIONS 111), (anon_sym_while, ACTIONS 113), (anon_sym_try, ACTIONS 115),
    (anon_sym_with, ACTIONS 117), (anon_sym_def, ACTIONS 119), (anon_sym_fn, ACTIONS 119),
    (anon_sym_LBRACK, ACTIONS 59), (anon_sym_LBRACE, ACTIONS 61), (anon_sym_global, ACTIONS 63),
    (anon_sym_nonlocal, ACTIONS 65), (anon_sym_exec, ACTIONS 67), (anon_sym_type, ACTIONS 69),
    (anon_sym_class, ACTIONS 121), (anon_sym_struct, ACTIONS 121), (anon_sym_mut, ACTIONS 73),
    (anon_sym_out, ACTIONS 73), (anon_sym_trait, ACTIONS 123), (anon_sym_AT, ACTIONS 77),
    (anon_sym_DASH, ACTIONS 79), (anon_sym_PLUS, ACTIONS 79), (anon_sym_ref, ACTIONS 81),
    (anon_sym_var, ACTIONS 81), (anon_sym_not, ACTIONS 83), (anon_sym_TILDE, ACTIONS 79),
    (anon_sym_lambda, ACTIONS 85), (anon_sym_yield, ACTIONS 87), (sym_ellipsis, ACTIONS 89),
    (anon_sym___mlir_type, ACTIONS 91), (sym_integer, ACTIONS 93), (sym_float, ACTIONS 89),
    (anon_sym_await, ACTIONS 95), (sym_true, ACTIONS 93), (sym_false, ACTIONS 93),
    (sym_none, ACTIONS 93), (sym_comment, ACTIONS 3), (sym_line_continuation, ACTIONS 3),
    (sym__dedent, ACTIONS 125), (sym_string_start, ACTIONS 97)]"

definition parse_table_636 :: "(nat \<times> nat) list" where "parse_table_636 = [
    (sym__statement, STATE 927), (sym__simple_statements, STATE 927),
    (sym_import_statement, STATE 11814), (sym_future_import_statement, STATE 11814),
    (sym_import_from_statement, STATE 11814), (sym_print_statement, STATE 11814),
    (sym_assert_statement, STATE 11814), (sym_comptime_assert_statement, STATE 11814),
    (sym_expression_statement, STATE 11814), (sym_tuple_expression, STATE 12425),
    (sym_named_expression, STATE 7969), (sym__named_expression_lhs, STATE 12752),
    (sym_return_statement, STATE 11814), (sym_delete_statement, STATE 11814),
    (sym_raise_statement, STATE 11814), (sym_pass_statement, STATE 11814),
    (sym_break_statement, STATE 11814), (sym_continue_statement, STATE 11814),
    (sym_extension_definition, STATE 927), (sym_mlir_region, STATE 927),
    (sym_comptime_statement, STATE 927), (sym_if_statement, STATE 927),
    (sym_match_statement, STATE 927), (sym_for_statement, STATE 927),
    (sym_while_statement, STATE 927), (sym_try_statement, STATE 927),
    (sym_with_statement, STATE 927), (sym_function_definition, STATE 927),
    (sym_global_statement, STATE 11814), (sym_nonlocal_statement, STATE 11814),
    (sym_exec_statement, STATE 11814), (sym_type_alias_statement, STATE 11814),
    (sym_parameterized_alias_statement, STATE 11814), (sym_class_definition, STATE 927),
    (sym_trait_definition, STATE 927), (sym_decorated_definition, STATE 927),
    (sym_decorator, STATE 3670), (sym_block, STATE 5830), (sym_pattern, STATE 8086),
    (sym_tuple_pattern, STATE 8101), (sym_list_pattern, STATE 8101),
    (sym_list_splat_pattern, STATE 6819), (sym_as_pattern, STATE 7969),
    (sym_expression, STATE 9883), (sym_primary_expression, STATE 7326),
    (sym_comptime_expression, STATE 7017), (sym_transfer_expression, STATE 7017),
    (sym_not_operator, STATE 7969), (sym_boolean_operator, STATE 7969),
    (sym_binary_operator, STATE 7017), (sym_unary_operator, STATE 7017),
    (sym_comparison_operator, STATE 7969), (sym_lambda, STATE 7969),
    (sym_assignment, STATE 12425), (sym_augmented_assignment, STATE 12425),
    (sym_pattern_list, STATE 8578), (sym_yield, STATE 12425), (sym_attribute, STATE 6836),
    (sym_subscript, STATE 6838), (sym_call, STATE 6845), (sym_mlir_type, STATE 7017),
    (sym_list, STATE 7017), (sym_set, STATE 7017), (sym_tuple, STATE 7017),
    (sym_dictionary, STATE 7017), (sym_struct_literal, STATE 7017),
    (sym_list_comprehension, STATE 7017), (sym_dictionary_comprehension, STATE 7017),
    (sym_set_comprehension, STATE 7017), (sym_generator_expression, STATE 7017),
    (sym_parenthesized_expression, STATE 7017), (sym_conditional_expression, STATE 7969),
    (sym_concatenated_string, STATE 7017), (sym_string, STATE 6751), (sym_await, STATE 7017),
    (aux_sym_module_repeat1, STATE 927), (aux_sym_decorated_definition_repeat1, STATE 3670),
    (sym_identifier, ACTIONS 9), (anon_sym_import, ACTIONS 11), (anon_sym_from, ACTIONS 13),
    (anon_sym_LPAREN, ACTIONS 15), (anon_sym_STAR, ACTIONS 17), (anon_sym_print, ACTIONS 19),
    (anon_sym_comptime, ACTIONS 99), (anon_sym_assert, ACTIONS 23),
    (anon_sym___comptime_assert, ACTIONS 25), (anon_sym_return, ACTIONS 27),
    (anon_sym_del, ACTIONS 29), (anon_sym_raise, ACTIONS 31), (anon_sym_pass, ACTIONS 33),
    (anon_sym_break, ACTIONS 35), (anon_sym_continue, ACTIONS 37),
    (anon_sym___extension, ACTIONS 101), (anon_sym___mlir_region, ACTIONS 103),
    (anon_sym_if, ACTIONS 105), (anon_sym_match, ACTIONS 107), (anon_sym_async, ACTIONS 109),
    (anon_sym_for, ACTIONS 111), (anon_sym_while, ACTIONS 113), (anon_sym_try, ACTIONS 115),
    (anon_sym_with, ACTIONS 117), (anon_sym_def, ACTIONS 119), (anon_sym_fn, ACTIONS 119),
    (anon_sym_LBRACK, ACTIONS 59), (anon_sym_LBRACE, ACTIONS 61), (anon_sym_global, ACTIONS 63),
    (anon_sym_nonlocal, ACTIONS 65), (anon_sym_exec, ACTIONS 67), (anon_sym_type, ACTIONS 69),
    (anon_sym_class, ACTIONS 121), (anon_sym_struct, ACTIONS 121), (anon_sym_mut, ACTIONS 73),
    (anon_sym_out, ACTIONS 73), (anon_sym_trait, ACTIONS 123), (anon_sym_AT, ACTIONS 77),
    (anon_sym_DASH, ACTIONS 79), (anon_sym_PLUS, ACTIONS 79), (anon_sym_ref, ACTIONS 81),
    (anon_sym_var, ACTIONS 81), (anon_sym_not, ACTIONS 83), (anon_sym_TILDE, ACTIONS 79),
    (anon_sym_lambda, ACTIONS 85), (anon_sym_yield, ACTIONS 87), (sym_ellipsis, ACTIONS 89),
    (anon_sym___mlir_type, ACTIONS 91), (sym_integer, ACTIONS 93), (sym_float, ACTIONS 89),
    (anon_sym_await, ACTIONS 95), (sym_true, ACTIONS 93), (sym_false, ACTIONS 93),
    (sym_none, ACTIONS 93), (sym_comment, ACTIONS 3), (sym_line_continuation, ACTIONS 3),
    (sym__dedent, ACTIONS 125), (sym_string_start, ACTIONS 97)]"

definition parse_table_637 :: "(nat \<times> nat) list" where "parse_table_637 = [
    (sym__statement, STATE 927), (sym__simple_statements, STATE 927),
    (sym_import_statement, STATE 11814), (sym_future_import_statement, STATE 11814),
    (sym_import_from_statement, STATE 11814), (sym_print_statement, STATE 11814),
    (sym_assert_statement, STATE 11814), (sym_comptime_assert_statement, STATE 11814),
    (sym_expression_statement, STATE 11814), (sym_tuple_expression, STATE 12425),
    (sym_named_expression, STATE 7969), (sym__named_expression_lhs, STATE 12752),
    (sym_return_statement, STATE 11814), (sym_delete_statement, STATE 11814),
    (sym_raise_statement, STATE 11814), (sym_pass_statement, STATE 11814),
    (sym_break_statement, STATE 11814), (sym_continue_statement, STATE 11814),
    (sym_extension_definition, STATE 927), (sym_mlir_region, STATE 927),
    (sym_comptime_statement, STATE 927), (sym_if_statement, STATE 927),
    (sym_match_statement, STATE 927), (sym_for_statement, STATE 927),
    (sym_while_statement, STATE 927), (sym_try_statement, STATE 927),
    (sym_with_statement, STATE 927), (sym_function_definition, STATE 927),
    (sym_global_statement, STATE 11814), (sym_nonlocal_statement, STATE 11814),
    (sym_exec_statement, STATE 11814), (sym_type_alias_statement, STATE 11814),
    (sym_parameterized_alias_statement, STATE 11814), (sym_class_definition, STATE 927),
    (sym_trait_definition, STATE 927), (sym_decorated_definition, STATE 927),
    (sym_decorator, STATE 3670), (sym_block, STATE 5831), (sym_pattern, STATE 8086),
    (sym_tuple_pattern, STATE 8101), (sym_list_pattern, STATE 8101),
    (sym_list_splat_pattern, STATE 6819), (sym_as_pattern, STATE 7969),
    (sym_expression, STATE 9883), (sym_primary_expression, STATE 7326),
    (sym_comptime_expression, STATE 7017), (sym_transfer_expression, STATE 7017),
    (sym_not_operator, STATE 7969), (sym_boolean_operator, STATE 7969),
    (sym_binary_operator, STATE 7017), (sym_unary_operator, STATE 7017),
    (sym_comparison_operator, STATE 7969), (sym_lambda, STATE 7969),
    (sym_assignment, STATE 12425), (sym_augmented_assignment, STATE 12425),
    (sym_pattern_list, STATE 8578), (sym_yield, STATE 12425), (sym_attribute, STATE 6836),
    (sym_subscript, STATE 6838), (sym_call, STATE 6845), (sym_mlir_type, STATE 7017),
    (sym_list, STATE 7017), (sym_set, STATE 7017), (sym_tuple, STATE 7017),
    (sym_dictionary, STATE 7017), (sym_struct_literal, STATE 7017),
    (sym_list_comprehension, STATE 7017), (sym_dictionary_comprehension, STATE 7017),
    (sym_set_comprehension, STATE 7017), (sym_generator_expression, STATE 7017),
    (sym_parenthesized_expression, STATE 7017), (sym_conditional_expression, STATE 7969),
    (sym_concatenated_string, STATE 7017), (sym_string, STATE 6751), (sym_await, STATE 7017),
    (aux_sym_module_repeat1, STATE 927), (aux_sym_decorated_definition_repeat1, STATE 3670),
    (sym_identifier, ACTIONS 9), (anon_sym_import, ACTIONS 11), (anon_sym_from, ACTIONS 13),
    (anon_sym_LPAREN, ACTIONS 15), (anon_sym_STAR, ACTIONS 17), (anon_sym_print, ACTIONS 19),
    (anon_sym_comptime, ACTIONS 99), (anon_sym_assert, ACTIONS 23),
    (anon_sym___comptime_assert, ACTIONS 25), (anon_sym_return, ACTIONS 27),
    (anon_sym_del, ACTIONS 29), (anon_sym_raise, ACTIONS 31), (anon_sym_pass, ACTIONS 33),
    (anon_sym_break, ACTIONS 35), (anon_sym_continue, ACTIONS 37),
    (anon_sym___extension, ACTIONS 101), (anon_sym___mlir_region, ACTIONS 103),
    (anon_sym_if, ACTIONS 105), (anon_sym_match, ACTIONS 107), (anon_sym_async, ACTIONS 109),
    (anon_sym_for, ACTIONS 111), (anon_sym_while, ACTIONS 113), (anon_sym_try, ACTIONS 115),
    (anon_sym_with, ACTIONS 117), (anon_sym_def, ACTIONS 119), (anon_sym_fn, ACTIONS 119),
    (anon_sym_LBRACK, ACTIONS 59), (anon_sym_LBRACE, ACTIONS 61), (anon_sym_global, ACTIONS 63),
    (anon_sym_nonlocal, ACTIONS 65), (anon_sym_exec, ACTIONS 67), (anon_sym_type, ACTIONS 69),
    (anon_sym_class, ACTIONS 121), (anon_sym_struct, ACTIONS 121), (anon_sym_mut, ACTIONS 73),
    (anon_sym_out, ACTIONS 73), (anon_sym_trait, ACTIONS 123), (anon_sym_AT, ACTIONS 77),
    (anon_sym_DASH, ACTIONS 79), (anon_sym_PLUS, ACTIONS 79), (anon_sym_ref, ACTIONS 81),
    (anon_sym_var, ACTIONS 81), (anon_sym_not, ACTIONS 83), (anon_sym_TILDE, ACTIONS 79),
    (anon_sym_lambda, ACTIONS 85), (anon_sym_yield, ACTIONS 87), (sym_ellipsis, ACTIONS 89),
    (anon_sym___mlir_type, ACTIONS 91), (sym_integer, ACTIONS 93), (sym_float, ACTIONS 89),
    (anon_sym_await, ACTIONS 95), (sym_true, ACTIONS 93), (sym_false, ACTIONS 93),
    (sym_none, ACTIONS 93), (sym_comment, ACTIONS 3), (sym_line_continuation, ACTIONS 3),
    (sym__dedent, ACTIONS 125), (sym_string_start, ACTIONS 97)]"

definition parse_table_638 :: "(nat \<times> nat) list" where "parse_table_638 = [
    (sym__statement, STATE 927), (sym__simple_statements, STATE 927),
    (sym_import_statement, STATE 11814), (sym_future_import_statement, STATE 11814),
    (sym_import_from_statement, STATE 11814), (sym_print_statement, STATE 11814),
    (sym_assert_statement, STATE 11814), (sym_comptime_assert_statement, STATE 11814),
    (sym_expression_statement, STATE 11814), (sym_tuple_expression, STATE 12425),
    (sym_named_expression, STATE 7969), (sym__named_expression_lhs, STATE 12752),
    (sym_return_statement, STATE 11814), (sym_delete_statement, STATE 11814),
    (sym_raise_statement, STATE 11814), (sym_pass_statement, STATE 11814),
    (sym_break_statement, STATE 11814), (sym_continue_statement, STATE 11814),
    (sym_extension_definition, STATE 927), (sym_mlir_region, STATE 927),
    (sym_comptime_statement, STATE 927), (sym_if_statement, STATE 927),
    (sym_match_statement, STATE 927), (sym_for_statement, STATE 927),
    (sym_while_statement, STATE 927), (sym_try_statement, STATE 927),
    (sym_with_statement, STATE 927), (sym_function_definition, STATE 927),
    (sym_global_statement, STATE 11814), (sym_nonlocal_statement, STATE 11814),
    (sym_exec_statement, STATE 11814), (sym_type_alias_statement, STATE 11814),
    (sym_parameterized_alias_statement, STATE 11814), (sym_class_definition, STATE 927),
    (sym_trait_definition, STATE 927), (sym_decorated_definition, STATE 927),
    (sym_decorator, STATE 3670), (sym_block, STATE 5832), (sym_pattern, STATE 8086),
    (sym_tuple_pattern, STATE 8101), (sym_list_pattern, STATE 8101),
    (sym_list_splat_pattern, STATE 6819), (sym_as_pattern, STATE 7969),
    (sym_expression, STATE 9883), (sym_primary_expression, STATE 7326),
    (sym_comptime_expression, STATE 7017), (sym_transfer_expression, STATE 7017),
    (sym_not_operator, STATE 7969), (sym_boolean_operator, STATE 7969),
    (sym_binary_operator, STATE 7017), (sym_unary_operator, STATE 7017),
    (sym_comparison_operator, STATE 7969), (sym_lambda, STATE 7969),
    (sym_assignment, STATE 12425), (sym_augmented_assignment, STATE 12425),
    (sym_pattern_list, STATE 8578), (sym_yield, STATE 12425), (sym_attribute, STATE 6836),
    (sym_subscript, STATE 6838), (sym_call, STATE 6845), (sym_mlir_type, STATE 7017),
    (sym_list, STATE 7017), (sym_set, STATE 7017), (sym_tuple, STATE 7017),
    (sym_dictionary, STATE 7017), (sym_struct_literal, STATE 7017),
    (sym_list_comprehension, STATE 7017), (sym_dictionary_comprehension, STATE 7017),
    (sym_set_comprehension, STATE 7017), (sym_generator_expression, STATE 7017),
    (sym_parenthesized_expression, STATE 7017), (sym_conditional_expression, STATE 7969),
    (sym_concatenated_string, STATE 7017), (sym_string, STATE 6751), (sym_await, STATE 7017),
    (aux_sym_module_repeat1, STATE 927), (aux_sym_decorated_definition_repeat1, STATE 3670),
    (sym_identifier, ACTIONS 9), (anon_sym_import, ACTIONS 11), (anon_sym_from, ACTIONS 13),
    (anon_sym_LPAREN, ACTIONS 15), (anon_sym_STAR, ACTIONS 17), (anon_sym_print, ACTIONS 19),
    (anon_sym_comptime, ACTIONS 99), (anon_sym_assert, ACTIONS 23),
    (anon_sym___comptime_assert, ACTIONS 25), (anon_sym_return, ACTIONS 27),
    (anon_sym_del, ACTIONS 29), (anon_sym_raise, ACTIONS 31), (anon_sym_pass, ACTIONS 33),
    (anon_sym_break, ACTIONS 35), (anon_sym_continue, ACTIONS 37),
    (anon_sym___extension, ACTIONS 101), (anon_sym___mlir_region, ACTIONS 103),
    (anon_sym_if, ACTIONS 105), (anon_sym_match, ACTIONS 107), (anon_sym_async, ACTIONS 109),
    (anon_sym_for, ACTIONS 111), (anon_sym_while, ACTIONS 113), (anon_sym_try, ACTIONS 115),
    (anon_sym_with, ACTIONS 117), (anon_sym_def, ACTIONS 119), (anon_sym_fn, ACTIONS 119),
    (anon_sym_LBRACK, ACTIONS 59), (anon_sym_LBRACE, ACTIONS 61), (anon_sym_global, ACTIONS 63),
    (anon_sym_nonlocal, ACTIONS 65), (anon_sym_exec, ACTIONS 67), (anon_sym_type, ACTIONS 69),
    (anon_sym_class, ACTIONS 121), (anon_sym_struct, ACTIONS 121), (anon_sym_mut, ACTIONS 73),
    (anon_sym_out, ACTIONS 73), (anon_sym_trait, ACTIONS 123), (anon_sym_AT, ACTIONS 77),
    (anon_sym_DASH, ACTIONS 79), (anon_sym_PLUS, ACTIONS 79), (anon_sym_ref, ACTIONS 81),
    (anon_sym_var, ACTIONS 81), (anon_sym_not, ACTIONS 83), (anon_sym_TILDE, ACTIONS 79),
    (anon_sym_lambda, ACTIONS 85), (anon_sym_yield, ACTIONS 87), (sym_ellipsis, ACTIONS 89),
    (anon_sym___mlir_type, ACTIONS 91), (sym_integer, ACTIONS 93), (sym_float, ACTIONS 89),
    (anon_sym_await, ACTIONS 95), (sym_true, ACTIONS 93), (sym_false, ACTIONS 93),
    (sym_none, ACTIONS 93), (sym_comment, ACTIONS 3), (sym_line_continuation, ACTIONS 3),
    (sym__dedent, ACTIONS 125), (sym_string_start, ACTIONS 97)]"

definition parse_table_639 :: "(nat \<times> nat) list" where "parse_table_639 = [
    (sym__statement, STATE 927), (sym__simple_statements, STATE 927),
    (sym_import_statement, STATE 11814), (sym_future_import_statement, STATE 11814),
    (sym_import_from_statement, STATE 11814), (sym_print_statement, STATE 11814),
    (sym_assert_statement, STATE 11814), (sym_comptime_assert_statement, STATE 11814),
    (sym_expression_statement, STATE 11814), (sym_tuple_expression, STATE 12425),
    (sym_named_expression, STATE 7969), (sym__named_expression_lhs, STATE 12752),
    (sym_return_statement, STATE 11814), (sym_delete_statement, STATE 11814),
    (sym_raise_statement, STATE 11814), (sym_pass_statement, STATE 11814),
    (sym_break_statement, STATE 11814), (sym_continue_statement, STATE 11814),
    (sym_extension_definition, STATE 927), (sym_mlir_region, STATE 927),
    (sym_comptime_statement, STATE 927), (sym_if_statement, STATE 927),
    (sym_match_statement, STATE 927), (sym_for_statement, STATE 927),
    (sym_while_statement, STATE 927), (sym_try_statement, STATE 927),
    (sym_with_statement, STATE 927), (sym_function_definition, STATE 927),
    (sym_global_statement, STATE 11814), (sym_nonlocal_statement, STATE 11814),
    (sym_exec_statement, STATE 11814), (sym_type_alias_statement, STATE 11814),
    (sym_parameterized_alias_statement, STATE 11814), (sym_class_definition, STATE 927),
    (sym_trait_definition, STATE 927), (sym_decorated_definition, STATE 927),
    (sym_decorator, STATE 3670), (sym_block, STATE 5835), (sym_pattern, STATE 8086),
    (sym_tuple_pattern, STATE 8101), (sym_list_pattern, STATE 8101),
    (sym_list_splat_pattern, STATE 6819), (sym_as_pattern, STATE 7969),
    (sym_expression, STATE 9883), (sym_primary_expression, STATE 7326),
    (sym_comptime_expression, STATE 7017), (sym_transfer_expression, STATE 7017),
    (sym_not_operator, STATE 7969), (sym_boolean_operator, STATE 7969),
    (sym_binary_operator, STATE 7017), (sym_unary_operator, STATE 7017),
    (sym_comparison_operator, STATE 7969), (sym_lambda, STATE 7969),
    (sym_assignment, STATE 12425), (sym_augmented_assignment, STATE 12425),
    (sym_pattern_list, STATE 8578), (sym_yield, STATE 12425), (sym_attribute, STATE 6836),
    (sym_subscript, STATE 6838), (sym_call, STATE 6845), (sym_mlir_type, STATE 7017),
    (sym_list, STATE 7017), (sym_set, STATE 7017), (sym_tuple, STATE 7017),
    (sym_dictionary, STATE 7017), (sym_struct_literal, STATE 7017),
    (sym_list_comprehension, STATE 7017), (sym_dictionary_comprehension, STATE 7017),
    (sym_set_comprehension, STATE 7017), (sym_generator_expression, STATE 7017),
    (sym_parenthesized_expression, STATE 7017), (sym_conditional_expression, STATE 7969),
    (sym_concatenated_string, STATE 7017), (sym_string, STATE 6751), (sym_await, STATE 7017),
    (aux_sym_module_repeat1, STATE 927), (aux_sym_decorated_definition_repeat1, STATE 3670),
    (sym_identifier, ACTIONS 9), (anon_sym_import, ACTIONS 11), (anon_sym_from, ACTIONS 13),
    (anon_sym_LPAREN, ACTIONS 15), (anon_sym_STAR, ACTIONS 17), (anon_sym_print, ACTIONS 19),
    (anon_sym_comptime, ACTIONS 99), (anon_sym_assert, ACTIONS 23),
    (anon_sym___comptime_assert, ACTIONS 25), (anon_sym_return, ACTIONS 27),
    (anon_sym_del, ACTIONS 29), (anon_sym_raise, ACTIONS 31), (anon_sym_pass, ACTIONS 33),
    (anon_sym_break, ACTIONS 35), (anon_sym_continue, ACTIONS 37),
    (anon_sym___extension, ACTIONS 101), (anon_sym___mlir_region, ACTIONS 103),
    (anon_sym_if, ACTIONS 105), (anon_sym_match, ACTIONS 107), (anon_sym_async, ACTIONS 109),
    (anon_sym_for, ACTIONS 111), (anon_sym_while, ACTIONS 113), (anon_sym_try, ACTIONS 115),
    (anon_sym_with, ACTIONS 117), (anon_sym_def, ACTIONS 119), (anon_sym_fn, ACTIONS 119),
    (anon_sym_LBRACK, ACTIONS 59), (anon_sym_LBRACE, ACTIONS 61), (anon_sym_global, ACTIONS 63),
    (anon_sym_nonlocal, ACTIONS 65), (anon_sym_exec, ACTIONS 67), (anon_sym_type, ACTIONS 69),
    (anon_sym_class, ACTIONS 121), (anon_sym_struct, ACTIONS 121), (anon_sym_mut, ACTIONS 73),
    (anon_sym_out, ACTIONS 73), (anon_sym_trait, ACTIONS 123), (anon_sym_AT, ACTIONS 77),
    (anon_sym_DASH, ACTIONS 79), (anon_sym_PLUS, ACTIONS 79), (anon_sym_ref, ACTIONS 81),
    (anon_sym_var, ACTIONS 81), (anon_sym_not, ACTIONS 83), (anon_sym_TILDE, ACTIONS 79),
    (anon_sym_lambda, ACTIONS 85), (anon_sym_yield, ACTIONS 87), (sym_ellipsis, ACTIONS 89),
    (anon_sym___mlir_type, ACTIONS 91), (sym_integer, ACTIONS 93), (sym_float, ACTIONS 89),
    (anon_sym_await, ACTIONS 95), (sym_true, ACTIONS 93), (sym_false, ACTIONS 93),
    (sym_none, ACTIONS 93), (sym_comment, ACTIONS 3), (sym_line_continuation, ACTIONS 3),
    (sym__dedent, ACTIONS 125), (sym_string_start, ACTIONS 97)]"

definition parse_table_640 :: "(nat \<times> nat) list" where "parse_table_640 = [
    (sym__statement, STATE 927), (sym__simple_statements, STATE 927),
    (sym_import_statement, STATE 11814), (sym_future_import_statement, STATE 11814),
    (sym_import_from_statement, STATE 11814), (sym_print_statement, STATE 11814),
    (sym_assert_statement, STATE 11814), (sym_comptime_assert_statement, STATE 11814),
    (sym_expression_statement, STATE 11814), (sym_tuple_expression, STATE 12425),
    (sym_named_expression, STATE 7969), (sym__named_expression_lhs, STATE 12752),
    (sym_return_statement, STATE 11814), (sym_delete_statement, STATE 11814),
    (sym_raise_statement, STATE 11814), (sym_pass_statement, STATE 11814),
    (sym_break_statement, STATE 11814), (sym_continue_statement, STATE 11814),
    (sym_extension_definition, STATE 927), (sym_mlir_region, STATE 927),
    (sym_comptime_statement, STATE 927), (sym_if_statement, STATE 927),
    (sym_match_statement, STATE 927), (sym_for_statement, STATE 927),
    (sym_while_statement, STATE 927), (sym_try_statement, STATE 927),
    (sym_with_statement, STATE 927), (sym_function_definition, STATE 927),
    (sym_global_statement, STATE 11814), (sym_nonlocal_statement, STATE 11814),
    (sym_exec_statement, STATE 11814), (sym_type_alias_statement, STATE 11814),
    (sym_parameterized_alias_statement, STATE 11814), (sym_class_definition, STATE 927),
    (sym_trait_definition, STATE 927), (sym_decorated_definition, STATE 927),
    (sym_decorator, STATE 3670), (sym_block, STATE 5836), (sym_pattern, STATE 8086),
    (sym_tuple_pattern, STATE 8101), (sym_list_pattern, STATE 8101),
    (sym_list_splat_pattern, STATE 6819), (sym_as_pattern, STATE 7969),
    (sym_expression, STATE 9883), (sym_primary_expression, STATE 7326),
    (sym_comptime_expression, STATE 7017), (sym_transfer_expression, STATE 7017),
    (sym_not_operator, STATE 7969), (sym_boolean_operator, STATE 7969),
    (sym_binary_operator, STATE 7017), (sym_unary_operator, STATE 7017),
    (sym_comparison_operator, STATE 7969), (sym_lambda, STATE 7969),
    (sym_assignment, STATE 12425), (sym_augmented_assignment, STATE 12425),
    (sym_pattern_list, STATE 8578), (sym_yield, STATE 12425), (sym_attribute, STATE 6836),
    (sym_subscript, STATE 6838), (sym_call, STATE 6845), (sym_mlir_type, STATE 7017),
    (sym_list, STATE 7017), (sym_set, STATE 7017), (sym_tuple, STATE 7017),
    (sym_dictionary, STATE 7017), (sym_struct_literal, STATE 7017),
    (sym_list_comprehension, STATE 7017), (sym_dictionary_comprehension, STATE 7017),
    (sym_set_comprehension, STATE 7017), (sym_generator_expression, STATE 7017),
    (sym_parenthesized_expression, STATE 7017), (sym_conditional_expression, STATE 7969),
    (sym_concatenated_string, STATE 7017), (sym_string, STATE 6751), (sym_await, STATE 7017),
    (aux_sym_module_repeat1, STATE 927), (aux_sym_decorated_definition_repeat1, STATE 3670),
    (sym_identifier, ACTIONS 9), (anon_sym_import, ACTIONS 11), (anon_sym_from, ACTIONS 13),
    (anon_sym_LPAREN, ACTIONS 15), (anon_sym_STAR, ACTIONS 17), (anon_sym_print, ACTIONS 19),
    (anon_sym_comptime, ACTIONS 99), (anon_sym_assert, ACTIONS 23),
    (anon_sym___comptime_assert, ACTIONS 25), (anon_sym_return, ACTIONS 27),
    (anon_sym_del, ACTIONS 29), (anon_sym_raise, ACTIONS 31), (anon_sym_pass, ACTIONS 33),
    (anon_sym_break, ACTIONS 35), (anon_sym_continue, ACTIONS 37),
    (anon_sym___extension, ACTIONS 101), (anon_sym___mlir_region, ACTIONS 103),
    (anon_sym_if, ACTIONS 105), (anon_sym_match, ACTIONS 107), (anon_sym_async, ACTIONS 109),
    (anon_sym_for, ACTIONS 111), (anon_sym_while, ACTIONS 113), (anon_sym_try, ACTIONS 115),
    (anon_sym_with, ACTIONS 117), (anon_sym_def, ACTIONS 119), (anon_sym_fn, ACTIONS 119),
    (anon_sym_LBRACK, ACTIONS 59), (anon_sym_LBRACE, ACTIONS 61), (anon_sym_global, ACTIONS 63),
    (anon_sym_nonlocal, ACTIONS 65), (anon_sym_exec, ACTIONS 67), (anon_sym_type, ACTIONS 69),
    (anon_sym_class, ACTIONS 121), (anon_sym_struct, ACTIONS 121), (anon_sym_mut, ACTIONS 73),
    (anon_sym_out, ACTIONS 73), (anon_sym_trait, ACTIONS 123), (anon_sym_AT, ACTIONS 77),
    (anon_sym_DASH, ACTIONS 79), (anon_sym_PLUS, ACTIONS 79), (anon_sym_ref, ACTIONS 81),
    (anon_sym_var, ACTIONS 81), (anon_sym_not, ACTIONS 83), (anon_sym_TILDE, ACTIONS 79),
    (anon_sym_lambda, ACTIONS 85), (anon_sym_yield, ACTIONS 87), (sym_ellipsis, ACTIONS 89),
    (anon_sym___mlir_type, ACTIONS 91), (sym_integer, ACTIONS 93), (sym_float, ACTIONS 89),
    (anon_sym_await, ACTIONS 95), (sym_true, ACTIONS 93), (sym_false, ACTIONS 93),
    (sym_none, ACTIONS 93), (sym_comment, ACTIONS 3), (sym_line_continuation, ACTIONS 3),
    (sym__dedent, ACTIONS 125), (sym_string_start, ACTIONS 97)]"

definition parse_table_641 :: "(nat \<times> nat) list" where "parse_table_641 = [
    (sym__statement, STATE 927), (sym__simple_statements, STATE 927),
    (sym_import_statement, STATE 11814), (sym_future_import_statement, STATE 11814),
    (sym_import_from_statement, STATE 11814), (sym_print_statement, STATE 11814),
    (sym_assert_statement, STATE 11814), (sym_comptime_assert_statement, STATE 11814),
    (sym_expression_statement, STATE 11814), (sym_tuple_expression, STATE 12425),
    (sym_named_expression, STATE 7969), (sym__named_expression_lhs, STATE 12752),
    (sym_return_statement, STATE 11814), (sym_delete_statement, STATE 11814),
    (sym_raise_statement, STATE 11814), (sym_pass_statement, STATE 11814),
    (sym_break_statement, STATE 11814), (sym_continue_statement, STATE 11814),
    (sym_extension_definition, STATE 927), (sym_mlir_region, STATE 927),
    (sym_comptime_statement, STATE 927), (sym_if_statement, STATE 927),
    (sym_match_statement, STATE 927), (sym_for_statement, STATE 927),
    (sym_while_statement, STATE 927), (sym_try_statement, STATE 927),
    (sym_with_statement, STATE 927), (sym_function_definition, STATE 927),
    (sym_global_statement, STATE 11814), (sym_nonlocal_statement, STATE 11814),
    (sym_exec_statement, STATE 11814), (sym_type_alias_statement, STATE 11814),
    (sym_parameterized_alias_statement, STATE 11814), (sym_class_definition, STATE 927),
    (sym_trait_definition, STATE 927), (sym_decorated_definition, STATE 927),
    (sym_decorator, STATE 3670), (sym_block, STATE 5837), (sym_pattern, STATE 8086),
    (sym_tuple_pattern, STATE 8101), (sym_list_pattern, STATE 8101),
    (sym_list_splat_pattern, STATE 6819), (sym_as_pattern, STATE 7969),
    (sym_expression, STATE 9883), (sym_primary_expression, STATE 7326),
    (sym_comptime_expression, STATE 7017), (sym_transfer_expression, STATE 7017),
    (sym_not_operator, STATE 7969), (sym_boolean_operator, STATE 7969),
    (sym_binary_operator, STATE 7017), (sym_unary_operator, STATE 7017),
    (sym_comparison_operator, STATE 7969), (sym_lambda, STATE 7969),
    (sym_assignment, STATE 12425), (sym_augmented_assignment, STATE 12425),
    (sym_pattern_list, STATE 8578), (sym_yield, STATE 12425), (sym_attribute, STATE 6836),
    (sym_subscript, STATE 6838), (sym_call, STATE 6845), (sym_mlir_type, STATE 7017),
    (sym_list, STATE 7017), (sym_set, STATE 7017), (sym_tuple, STATE 7017),
    (sym_dictionary, STATE 7017), (sym_struct_literal, STATE 7017),
    (sym_list_comprehension, STATE 7017), (sym_dictionary_comprehension, STATE 7017),
    (sym_set_comprehension, STATE 7017), (sym_generator_expression, STATE 7017),
    (sym_parenthesized_expression, STATE 7017), (sym_conditional_expression, STATE 7969),
    (sym_concatenated_string, STATE 7017), (sym_string, STATE 6751), (sym_await, STATE 7017),
    (aux_sym_module_repeat1, STATE 927), (aux_sym_decorated_definition_repeat1, STATE 3670),
    (sym_identifier, ACTIONS 9), (anon_sym_import, ACTIONS 11), (anon_sym_from, ACTIONS 13),
    (anon_sym_LPAREN, ACTIONS 15), (anon_sym_STAR, ACTIONS 17), (anon_sym_print, ACTIONS 19),
    (anon_sym_comptime, ACTIONS 99), (anon_sym_assert, ACTIONS 23),
    (anon_sym___comptime_assert, ACTIONS 25), (anon_sym_return, ACTIONS 27),
    (anon_sym_del, ACTIONS 29), (anon_sym_raise, ACTIONS 31), (anon_sym_pass, ACTIONS 33),
    (anon_sym_break, ACTIONS 35), (anon_sym_continue, ACTIONS 37),
    (anon_sym___extension, ACTIONS 101), (anon_sym___mlir_region, ACTIONS 103),
    (anon_sym_if, ACTIONS 105), (anon_sym_match, ACTIONS 107), (anon_sym_async, ACTIONS 109),
    (anon_sym_for, ACTIONS 111), (anon_sym_while, ACTIONS 113), (anon_sym_try, ACTIONS 115),
    (anon_sym_with, ACTIONS 117), (anon_sym_def, ACTIONS 119), (anon_sym_fn, ACTIONS 119),
    (anon_sym_LBRACK, ACTIONS 59), (anon_sym_LBRACE, ACTIONS 61), (anon_sym_global, ACTIONS 63),
    (anon_sym_nonlocal, ACTIONS 65), (anon_sym_exec, ACTIONS 67), (anon_sym_type, ACTIONS 69),
    (anon_sym_class, ACTIONS 121), (anon_sym_struct, ACTIONS 121), (anon_sym_mut, ACTIONS 73),
    (anon_sym_out, ACTIONS 73), (anon_sym_trait, ACTIONS 123), (anon_sym_AT, ACTIONS 77),
    (anon_sym_DASH, ACTIONS 79), (anon_sym_PLUS, ACTIONS 79), (anon_sym_ref, ACTIONS 81),
    (anon_sym_var, ACTIONS 81), (anon_sym_not, ACTIONS 83), (anon_sym_TILDE, ACTIONS 79),
    (anon_sym_lambda, ACTIONS 85), (anon_sym_yield, ACTIONS 87), (sym_ellipsis, ACTIONS 89),
    (anon_sym___mlir_type, ACTIONS 91), (sym_integer, ACTIONS 93), (sym_float, ACTIONS 89),
    (anon_sym_await, ACTIONS 95), (sym_true, ACTIONS 93), (sym_false, ACTIONS 93),
    (sym_none, ACTIONS 93), (sym_comment, ACTIONS 3), (sym_line_continuation, ACTIONS 3),
    (sym__dedent, ACTIONS 125), (sym_string_start, ACTIONS 97)]"

definition parse_table_642 :: "(nat \<times> nat) list" where "parse_table_642 = [
    (sym__statement, STATE 927), (sym__simple_statements, STATE 927),
    (sym_import_statement, STATE 11814), (sym_future_import_statement, STATE 11814),
    (sym_import_from_statement, STATE 11814), (sym_print_statement, STATE 11814),
    (sym_assert_statement, STATE 11814), (sym_comptime_assert_statement, STATE 11814),
    (sym_expression_statement, STATE 11814), (sym_tuple_expression, STATE 12425),
    (sym_named_expression, STATE 7969), (sym__named_expression_lhs, STATE 12752),
    (sym_return_statement, STATE 11814), (sym_delete_statement, STATE 11814),
    (sym_raise_statement, STATE 11814), (sym_pass_statement, STATE 11814),
    (sym_break_statement, STATE 11814), (sym_continue_statement, STATE 11814),
    (sym_extension_definition, STATE 927), (sym_mlir_region, STATE 927),
    (sym_comptime_statement, STATE 927), (sym_if_statement, STATE 927),
    (sym_match_statement, STATE 927), (sym_for_statement, STATE 927),
    (sym_while_statement, STATE 927), (sym_try_statement, STATE 927),
    (sym_with_statement, STATE 927), (sym_function_definition, STATE 927),
    (sym_global_statement, STATE 11814), (sym_nonlocal_statement, STATE 11814),
    (sym_exec_statement, STATE 11814), (sym_type_alias_statement, STATE 11814),
    (sym_parameterized_alias_statement, STATE 11814), (sym_class_definition, STATE 927),
    (sym_trait_definition, STATE 927), (sym_decorated_definition, STATE 927),
    (sym_decorator, STATE 3670), (sym_block, STATE 5838), (sym_pattern, STATE 8086),
    (sym_tuple_pattern, STATE 8101), (sym_list_pattern, STATE 8101),
    (sym_list_splat_pattern, STATE 6819), (sym_as_pattern, STATE 7969),
    (sym_expression, STATE 9883), (sym_primary_expression, STATE 7326),
    (sym_comptime_expression, STATE 7017), (sym_transfer_expression, STATE 7017),
    (sym_not_operator, STATE 7969), (sym_boolean_operator, STATE 7969),
    (sym_binary_operator, STATE 7017), (sym_unary_operator, STATE 7017),
    (sym_comparison_operator, STATE 7969), (sym_lambda, STATE 7969),
    (sym_assignment, STATE 12425), (sym_augmented_assignment, STATE 12425),
    (sym_pattern_list, STATE 8578), (sym_yield, STATE 12425), (sym_attribute, STATE 6836),
    (sym_subscript, STATE 6838), (sym_call, STATE 6845), (sym_mlir_type, STATE 7017),
    (sym_list, STATE 7017), (sym_set, STATE 7017), (sym_tuple, STATE 7017),
    (sym_dictionary, STATE 7017), (sym_struct_literal, STATE 7017),
    (sym_list_comprehension, STATE 7017), (sym_dictionary_comprehension, STATE 7017),
    (sym_set_comprehension, STATE 7017), (sym_generator_expression, STATE 7017),
    (sym_parenthesized_expression, STATE 7017), (sym_conditional_expression, STATE 7969),
    (sym_concatenated_string, STATE 7017), (sym_string, STATE 6751), (sym_await, STATE 7017),
    (aux_sym_module_repeat1, STATE 927), (aux_sym_decorated_definition_repeat1, STATE 3670),
    (sym_identifier, ACTIONS 9), (anon_sym_import, ACTIONS 11), (anon_sym_from, ACTIONS 13),
    (anon_sym_LPAREN, ACTIONS 15), (anon_sym_STAR, ACTIONS 17), (anon_sym_print, ACTIONS 19),
    (anon_sym_comptime, ACTIONS 99), (anon_sym_assert, ACTIONS 23),
    (anon_sym___comptime_assert, ACTIONS 25), (anon_sym_return, ACTIONS 27),
    (anon_sym_del, ACTIONS 29), (anon_sym_raise, ACTIONS 31), (anon_sym_pass, ACTIONS 33),
    (anon_sym_break, ACTIONS 35), (anon_sym_continue, ACTIONS 37),
    (anon_sym___extension, ACTIONS 101), (anon_sym___mlir_region, ACTIONS 103),
    (anon_sym_if, ACTIONS 105), (anon_sym_match, ACTIONS 107), (anon_sym_async, ACTIONS 109),
    (anon_sym_for, ACTIONS 111), (anon_sym_while, ACTIONS 113), (anon_sym_try, ACTIONS 115),
    (anon_sym_with, ACTIONS 117), (anon_sym_def, ACTIONS 119), (anon_sym_fn, ACTIONS 119),
    (anon_sym_LBRACK, ACTIONS 59), (anon_sym_LBRACE, ACTIONS 61), (anon_sym_global, ACTIONS 63),
    (anon_sym_nonlocal, ACTIONS 65), (anon_sym_exec, ACTIONS 67), (anon_sym_type, ACTIONS 69),
    (anon_sym_class, ACTIONS 121), (anon_sym_struct, ACTIONS 121), (anon_sym_mut, ACTIONS 73),
    (anon_sym_out, ACTIONS 73), (anon_sym_trait, ACTIONS 123), (anon_sym_AT, ACTIONS 77),
    (anon_sym_DASH, ACTIONS 79), (anon_sym_PLUS, ACTIONS 79), (anon_sym_ref, ACTIONS 81),
    (anon_sym_var, ACTIONS 81), (anon_sym_not, ACTIONS 83), (anon_sym_TILDE, ACTIONS 79),
    (anon_sym_lambda, ACTIONS 85), (anon_sym_yield, ACTIONS 87), (sym_ellipsis, ACTIONS 89),
    (anon_sym___mlir_type, ACTIONS 91), (sym_integer, ACTIONS 93), (sym_float, ACTIONS 89),
    (anon_sym_await, ACTIONS 95), (sym_true, ACTIONS 93), (sym_false, ACTIONS 93),
    (sym_none, ACTIONS 93), (sym_comment, ACTIONS 3), (sym_line_continuation, ACTIONS 3),
    (sym__dedent, ACTIONS 125), (sym_string_start, ACTIONS 97)]"

definition parse_table_643 :: "(nat \<times> nat) list" where "parse_table_643 = [
    (sym__statement, STATE 927), (sym__simple_statements, STATE 927),
    (sym_import_statement, STATE 11814), (sym_future_import_statement, STATE 11814),
    (sym_import_from_statement, STATE 11814), (sym_print_statement, STATE 11814),
    (sym_assert_statement, STATE 11814), (sym_comptime_assert_statement, STATE 11814),
    (sym_expression_statement, STATE 11814), (sym_tuple_expression, STATE 12425),
    (sym_named_expression, STATE 7969), (sym__named_expression_lhs, STATE 12752),
    (sym_return_statement, STATE 11814), (sym_delete_statement, STATE 11814),
    (sym_raise_statement, STATE 11814), (sym_pass_statement, STATE 11814),
    (sym_break_statement, STATE 11814), (sym_continue_statement, STATE 11814),
    (sym_extension_definition, STATE 927), (sym_mlir_region, STATE 927),
    (sym_comptime_statement, STATE 927), (sym_if_statement, STATE 927),
    (sym_match_statement, STATE 927), (sym_for_statement, STATE 927),
    (sym_while_statement, STATE 927), (sym_try_statement, STATE 927),
    (sym_with_statement, STATE 927), (sym_function_definition, STATE 927),
    (sym_global_statement, STATE 11814), (sym_nonlocal_statement, STATE 11814),
    (sym_exec_statement, STATE 11814), (sym_type_alias_statement, STATE 11814),
    (sym_parameterized_alias_statement, STATE 11814), (sym_class_definition, STATE 927),
    (sym_trait_definition, STATE 927), (sym_decorated_definition, STATE 927),
    (sym_decorator, STATE 3670), (sym_block, STATE 5842), (sym_pattern, STATE 8086),
    (sym_tuple_pattern, STATE 8101), (sym_list_pattern, STATE 8101),
    (sym_list_splat_pattern, STATE 6819), (sym_as_pattern, STATE 7969),
    (sym_expression, STATE 9883), (sym_primary_expression, STATE 7326),
    (sym_comptime_expression, STATE 7017), (sym_transfer_expression, STATE 7017),
    (sym_not_operator, STATE 7969), (sym_boolean_operator, STATE 7969),
    (sym_binary_operator, STATE 7017), (sym_unary_operator, STATE 7017),
    (sym_comparison_operator, STATE 7969), (sym_lambda, STATE 7969),
    (sym_assignment, STATE 12425), (sym_augmented_assignment, STATE 12425),
    (sym_pattern_list, STATE 8578), (sym_yield, STATE 12425), (sym_attribute, STATE 6836),
    (sym_subscript, STATE 6838), (sym_call, STATE 6845), (sym_mlir_type, STATE 7017),
    (sym_list, STATE 7017), (sym_set, STATE 7017), (sym_tuple, STATE 7017),
    (sym_dictionary, STATE 7017), (sym_struct_literal, STATE 7017),
    (sym_list_comprehension, STATE 7017), (sym_dictionary_comprehension, STATE 7017),
    (sym_set_comprehension, STATE 7017), (sym_generator_expression, STATE 7017),
    (sym_parenthesized_expression, STATE 7017), (sym_conditional_expression, STATE 7969),
    (sym_concatenated_string, STATE 7017), (sym_string, STATE 6751), (sym_await, STATE 7017),
    (aux_sym_module_repeat1, STATE 927), (aux_sym_decorated_definition_repeat1, STATE 3670),
    (sym_identifier, ACTIONS 9), (anon_sym_import, ACTIONS 11), (anon_sym_from, ACTIONS 13),
    (anon_sym_LPAREN, ACTIONS 15), (anon_sym_STAR, ACTIONS 17), (anon_sym_print, ACTIONS 19),
    (anon_sym_comptime, ACTIONS 99), (anon_sym_assert, ACTIONS 23),
    (anon_sym___comptime_assert, ACTIONS 25), (anon_sym_return, ACTIONS 27),
    (anon_sym_del, ACTIONS 29), (anon_sym_raise, ACTIONS 31), (anon_sym_pass, ACTIONS 33),
    (anon_sym_break, ACTIONS 35), (anon_sym_continue, ACTIONS 37),
    (anon_sym___extension, ACTIONS 101), (anon_sym___mlir_region, ACTIONS 103),
    (anon_sym_if, ACTIONS 105), (anon_sym_match, ACTIONS 107), (anon_sym_async, ACTIONS 109),
    (anon_sym_for, ACTIONS 111), (anon_sym_while, ACTIONS 113), (anon_sym_try, ACTIONS 115),
    (anon_sym_with, ACTIONS 117), (anon_sym_def, ACTIONS 119), (anon_sym_fn, ACTIONS 119),
    (anon_sym_LBRACK, ACTIONS 59), (anon_sym_LBRACE, ACTIONS 61), (anon_sym_global, ACTIONS 63),
    (anon_sym_nonlocal, ACTIONS 65), (anon_sym_exec, ACTIONS 67), (anon_sym_type, ACTIONS 69),
    (anon_sym_class, ACTIONS 121), (anon_sym_struct, ACTIONS 121), (anon_sym_mut, ACTIONS 73),
    (anon_sym_out, ACTIONS 73), (anon_sym_trait, ACTIONS 123), (anon_sym_AT, ACTIONS 77),
    (anon_sym_DASH, ACTIONS 79), (anon_sym_PLUS, ACTIONS 79), (anon_sym_ref, ACTIONS 81),
    (anon_sym_var, ACTIONS 81), (anon_sym_not, ACTIONS 83), (anon_sym_TILDE, ACTIONS 79),
    (anon_sym_lambda, ACTIONS 85), (anon_sym_yield, ACTIONS 87), (sym_ellipsis, ACTIONS 89),
    (anon_sym___mlir_type, ACTIONS 91), (sym_integer, ACTIONS 93), (sym_float, ACTIONS 89),
    (anon_sym_await, ACTIONS 95), (sym_true, ACTIONS 93), (sym_false, ACTIONS 93),
    (sym_none, ACTIONS 93), (sym_comment, ACTIONS 3), (sym_line_continuation, ACTIONS 3),
    (sym__dedent, ACTIONS 125), (sym_string_start, ACTIONS 97)]"

definition parse_table_644 :: "(nat \<times> nat) list" where "parse_table_644 = [
    (sym__statement, STATE 927), (sym__simple_statements, STATE 927),
    (sym_import_statement, STATE 11814), (sym_future_import_statement, STATE 11814),
    (sym_import_from_statement, STATE 11814), (sym_print_statement, STATE 11814),
    (sym_assert_statement, STATE 11814), (sym_comptime_assert_statement, STATE 11814),
    (sym_expression_statement, STATE 11814), (sym_tuple_expression, STATE 12425),
    (sym_named_expression, STATE 7969), (sym__named_expression_lhs, STATE 12752),
    (sym_return_statement, STATE 11814), (sym_delete_statement, STATE 11814),
    (sym_raise_statement, STATE 11814), (sym_pass_statement, STATE 11814),
    (sym_break_statement, STATE 11814), (sym_continue_statement, STATE 11814),
    (sym_extension_definition, STATE 927), (sym_mlir_region, STATE 927),
    (sym_comptime_statement, STATE 927), (sym_if_statement, STATE 927),
    (sym_match_statement, STATE 927), (sym_for_statement, STATE 927),
    (sym_while_statement, STATE 927), (sym_try_statement, STATE 927),
    (sym_with_statement, STATE 927), (sym_function_definition, STATE 927),
    (sym_global_statement, STATE 11814), (sym_nonlocal_statement, STATE 11814),
    (sym_exec_statement, STATE 11814), (sym_type_alias_statement, STATE 11814),
    (sym_parameterized_alias_statement, STATE 11814), (sym_class_definition, STATE 927),
    (sym_trait_definition, STATE 927), (sym_decorated_definition, STATE 927),
    (sym_decorator, STATE 3670), (sym_block, STATE 5843), (sym_pattern, STATE 8086),
    (sym_tuple_pattern, STATE 8101), (sym_list_pattern, STATE 8101),
    (sym_list_splat_pattern, STATE 6819), (sym_as_pattern, STATE 7969),
    (sym_expression, STATE 9883), (sym_primary_expression, STATE 7326),
    (sym_comptime_expression, STATE 7017), (sym_transfer_expression, STATE 7017),
    (sym_not_operator, STATE 7969), (sym_boolean_operator, STATE 7969),
    (sym_binary_operator, STATE 7017), (sym_unary_operator, STATE 7017),
    (sym_comparison_operator, STATE 7969), (sym_lambda, STATE 7969),
    (sym_assignment, STATE 12425), (sym_augmented_assignment, STATE 12425),
    (sym_pattern_list, STATE 8578), (sym_yield, STATE 12425), (sym_attribute, STATE 6836),
    (sym_subscript, STATE 6838), (sym_call, STATE 6845), (sym_mlir_type, STATE 7017),
    (sym_list, STATE 7017), (sym_set, STATE 7017), (sym_tuple, STATE 7017),
    (sym_dictionary, STATE 7017), (sym_struct_literal, STATE 7017),
    (sym_list_comprehension, STATE 7017), (sym_dictionary_comprehension, STATE 7017),
    (sym_set_comprehension, STATE 7017), (sym_generator_expression, STATE 7017),
    (sym_parenthesized_expression, STATE 7017), (sym_conditional_expression, STATE 7969),
    (sym_concatenated_string, STATE 7017), (sym_string, STATE 6751), (sym_await, STATE 7017),
    (aux_sym_module_repeat1, STATE 927), (aux_sym_decorated_definition_repeat1, STATE 3670),
    (sym_identifier, ACTIONS 9), (anon_sym_import, ACTIONS 11), (anon_sym_from, ACTIONS 13),
    (anon_sym_LPAREN, ACTIONS 15), (anon_sym_STAR, ACTIONS 17), (anon_sym_print, ACTIONS 19),
    (anon_sym_comptime, ACTIONS 99), (anon_sym_assert, ACTIONS 23),
    (anon_sym___comptime_assert, ACTIONS 25), (anon_sym_return, ACTIONS 27),
    (anon_sym_del, ACTIONS 29), (anon_sym_raise, ACTIONS 31), (anon_sym_pass, ACTIONS 33),
    (anon_sym_break, ACTIONS 35), (anon_sym_continue, ACTIONS 37),
    (anon_sym___extension, ACTIONS 101), (anon_sym___mlir_region, ACTIONS 103),
    (anon_sym_if, ACTIONS 105), (anon_sym_match, ACTIONS 107), (anon_sym_async, ACTIONS 109),
    (anon_sym_for, ACTIONS 111), (anon_sym_while, ACTIONS 113), (anon_sym_try, ACTIONS 115),
    (anon_sym_with, ACTIONS 117), (anon_sym_def, ACTIONS 119), (anon_sym_fn, ACTIONS 119),
    (anon_sym_LBRACK, ACTIONS 59), (anon_sym_LBRACE, ACTIONS 61), (anon_sym_global, ACTIONS 63),
    (anon_sym_nonlocal, ACTIONS 65), (anon_sym_exec, ACTIONS 67), (anon_sym_type, ACTIONS 69),
    (anon_sym_class, ACTIONS 121), (anon_sym_struct, ACTIONS 121), (anon_sym_mut, ACTIONS 73),
    (anon_sym_out, ACTIONS 73), (anon_sym_trait, ACTIONS 123), (anon_sym_AT, ACTIONS 77),
    (anon_sym_DASH, ACTIONS 79), (anon_sym_PLUS, ACTIONS 79), (anon_sym_ref, ACTIONS 81),
    (anon_sym_var, ACTIONS 81), (anon_sym_not, ACTIONS 83), (anon_sym_TILDE, ACTIONS 79),
    (anon_sym_lambda, ACTIONS 85), (anon_sym_yield, ACTIONS 87), (sym_ellipsis, ACTIONS 89),
    (anon_sym___mlir_type, ACTIONS 91), (sym_integer, ACTIONS 93), (sym_float, ACTIONS 89),
    (anon_sym_await, ACTIONS 95), (sym_true, ACTIONS 93), (sym_false, ACTIONS 93),
    (sym_none, ACTIONS 93), (sym_comment, ACTIONS 3), (sym_line_continuation, ACTIONS 3),
    (sym__dedent, ACTIONS 125), (sym_string_start, ACTIONS 97)]"

definition parse_table_645 :: "(nat \<times> nat) list" where "parse_table_645 = [
    (sym__statement, STATE 927), (sym__simple_statements, STATE 927),
    (sym_import_statement, STATE 11814), (sym_future_import_statement, STATE 11814),
    (sym_import_from_statement, STATE 11814), (sym_print_statement, STATE 11814),
    (sym_assert_statement, STATE 11814), (sym_comptime_assert_statement, STATE 11814),
    (sym_expression_statement, STATE 11814), (sym_tuple_expression, STATE 12425),
    (sym_named_expression, STATE 7969), (sym__named_expression_lhs, STATE 12752),
    (sym_return_statement, STATE 11814), (sym_delete_statement, STATE 11814),
    (sym_raise_statement, STATE 11814), (sym_pass_statement, STATE 11814),
    (sym_break_statement, STATE 11814), (sym_continue_statement, STATE 11814),
    (sym_extension_definition, STATE 927), (sym_mlir_region, STATE 927),
    (sym_comptime_statement, STATE 927), (sym_if_statement, STATE 927),
    (sym_match_statement, STATE 927), (sym_for_statement, STATE 927),
    (sym_while_statement, STATE 927), (sym_try_statement, STATE 927),
    (sym_with_statement, STATE 927), (sym_function_definition, STATE 927),
    (sym_global_statement, STATE 11814), (sym_nonlocal_statement, STATE 11814),
    (sym_exec_statement, STATE 11814), (sym_type_alias_statement, STATE 11814),
    (sym_parameterized_alias_statement, STATE 11814), (sym_class_definition, STATE 927),
    (sym_trait_definition, STATE 927), (sym_decorated_definition, STATE 927),
    (sym_decorator, STATE 3670), (sym_block, STATE 5845), (sym_pattern, STATE 8086),
    (sym_tuple_pattern, STATE 8101), (sym_list_pattern, STATE 8101),
    (sym_list_splat_pattern, STATE 6819), (sym_as_pattern, STATE 7969),
    (sym_expression, STATE 9883), (sym_primary_expression, STATE 7326),
    (sym_comptime_expression, STATE 7017), (sym_transfer_expression, STATE 7017),
    (sym_not_operator, STATE 7969), (sym_boolean_operator, STATE 7969),
    (sym_binary_operator, STATE 7017), (sym_unary_operator, STATE 7017),
    (sym_comparison_operator, STATE 7969), (sym_lambda, STATE 7969),
    (sym_assignment, STATE 12425), (sym_augmented_assignment, STATE 12425),
    (sym_pattern_list, STATE 8578), (sym_yield, STATE 12425), (sym_attribute, STATE 6836),
    (sym_subscript, STATE 6838), (sym_call, STATE 6845), (sym_mlir_type, STATE 7017),
    (sym_list, STATE 7017), (sym_set, STATE 7017), (sym_tuple, STATE 7017),
    (sym_dictionary, STATE 7017), (sym_struct_literal, STATE 7017),
    (sym_list_comprehension, STATE 7017), (sym_dictionary_comprehension, STATE 7017),
    (sym_set_comprehension, STATE 7017), (sym_generator_expression, STATE 7017),
    (sym_parenthesized_expression, STATE 7017), (sym_conditional_expression, STATE 7969),
    (sym_concatenated_string, STATE 7017), (sym_string, STATE 6751), (sym_await, STATE 7017),
    (aux_sym_module_repeat1, STATE 927), (aux_sym_decorated_definition_repeat1, STATE 3670),
    (sym_identifier, ACTIONS 9), (anon_sym_import, ACTIONS 11), (anon_sym_from, ACTIONS 13),
    (anon_sym_LPAREN, ACTIONS 15), (anon_sym_STAR, ACTIONS 17), (anon_sym_print, ACTIONS 19),
    (anon_sym_comptime, ACTIONS 99), (anon_sym_assert, ACTIONS 23),
    (anon_sym___comptime_assert, ACTIONS 25), (anon_sym_return, ACTIONS 27),
    (anon_sym_del, ACTIONS 29), (anon_sym_raise, ACTIONS 31), (anon_sym_pass, ACTIONS 33),
    (anon_sym_break, ACTIONS 35), (anon_sym_continue, ACTIONS 37),
    (anon_sym___extension, ACTIONS 101), (anon_sym___mlir_region, ACTIONS 103),
    (anon_sym_if, ACTIONS 105), (anon_sym_match, ACTIONS 107), (anon_sym_async, ACTIONS 109),
    (anon_sym_for, ACTIONS 111), (anon_sym_while, ACTIONS 113), (anon_sym_try, ACTIONS 115),
    (anon_sym_with, ACTIONS 117), (anon_sym_def, ACTIONS 119), (anon_sym_fn, ACTIONS 119),
    (anon_sym_LBRACK, ACTIONS 59), (anon_sym_LBRACE, ACTIONS 61), (anon_sym_global, ACTIONS 63),
    (anon_sym_nonlocal, ACTIONS 65), (anon_sym_exec, ACTIONS 67), (anon_sym_type, ACTIONS 69),
    (anon_sym_class, ACTIONS 121), (anon_sym_struct, ACTIONS 121), (anon_sym_mut, ACTIONS 73),
    (anon_sym_out, ACTIONS 73), (anon_sym_trait, ACTIONS 123), (anon_sym_AT, ACTIONS 77),
    (anon_sym_DASH, ACTIONS 79), (anon_sym_PLUS, ACTIONS 79), (anon_sym_ref, ACTIONS 81),
    (anon_sym_var, ACTIONS 81), (anon_sym_not, ACTIONS 83), (anon_sym_TILDE, ACTIONS 79),
    (anon_sym_lambda, ACTIONS 85), (anon_sym_yield, ACTIONS 87), (sym_ellipsis, ACTIONS 89),
    (anon_sym___mlir_type, ACTIONS 91), (sym_integer, ACTIONS 93), (sym_float, ACTIONS 89),
    (anon_sym_await, ACTIONS 95), (sym_true, ACTIONS 93), (sym_false, ACTIONS 93),
    (sym_none, ACTIONS 93), (sym_comment, ACTIONS 3), (sym_line_continuation, ACTIONS 3),
    (sym__dedent, ACTIONS 125), (sym_string_start, ACTIONS 97)]"

definition parse_table_646 :: "(nat \<times> nat) list" where "parse_table_646 = [
    (sym__statement, STATE 927), (sym__simple_statements, STATE 927),
    (sym_import_statement, STATE 11814), (sym_future_import_statement, STATE 11814),
    (sym_import_from_statement, STATE 11814), (sym_print_statement, STATE 11814),
    (sym_assert_statement, STATE 11814), (sym_comptime_assert_statement, STATE 11814),
    (sym_expression_statement, STATE 11814), (sym_tuple_expression, STATE 12425),
    (sym_named_expression, STATE 7969), (sym__named_expression_lhs, STATE 12752),
    (sym_return_statement, STATE 11814), (sym_delete_statement, STATE 11814),
    (sym_raise_statement, STATE 11814), (sym_pass_statement, STATE 11814),
    (sym_break_statement, STATE 11814), (sym_continue_statement, STATE 11814),
    (sym_extension_definition, STATE 927), (sym_mlir_region, STATE 927),
    (sym_comptime_statement, STATE 927), (sym_if_statement, STATE 927),
    (sym_match_statement, STATE 927), (sym_for_statement, STATE 927),
    (sym_while_statement, STATE 927), (sym_try_statement, STATE 927),
    (sym_with_statement, STATE 927), (sym_function_definition, STATE 927),
    (sym_global_statement, STATE 11814), (sym_nonlocal_statement, STATE 11814),
    (sym_exec_statement, STATE 11814), (sym_type_alias_statement, STATE 11814),
    (sym_parameterized_alias_statement, STATE 11814), (sym_class_definition, STATE 927),
    (sym_trait_definition, STATE 927), (sym_decorated_definition, STATE 927),
    (sym_decorator, STATE 3670), (sym_block, STATE 5848), (sym_pattern, STATE 8086),
    (sym_tuple_pattern, STATE 8101), (sym_list_pattern, STATE 8101),
    (sym_list_splat_pattern, STATE 6819), (sym_as_pattern, STATE 7969),
    (sym_expression, STATE 9883), (sym_primary_expression, STATE 7326),
    (sym_comptime_expression, STATE 7017), (sym_transfer_expression, STATE 7017),
    (sym_not_operator, STATE 7969), (sym_boolean_operator, STATE 7969),
    (sym_binary_operator, STATE 7017), (sym_unary_operator, STATE 7017),
    (sym_comparison_operator, STATE 7969), (sym_lambda, STATE 7969),
    (sym_assignment, STATE 12425), (sym_augmented_assignment, STATE 12425),
    (sym_pattern_list, STATE 8578), (sym_yield, STATE 12425), (sym_attribute, STATE 6836),
    (sym_subscript, STATE 6838), (sym_call, STATE 6845), (sym_mlir_type, STATE 7017),
    (sym_list, STATE 7017), (sym_set, STATE 7017), (sym_tuple, STATE 7017),
    (sym_dictionary, STATE 7017), (sym_struct_literal, STATE 7017),
    (sym_list_comprehension, STATE 7017), (sym_dictionary_comprehension, STATE 7017),
    (sym_set_comprehension, STATE 7017), (sym_generator_expression, STATE 7017),
    (sym_parenthesized_expression, STATE 7017), (sym_conditional_expression, STATE 7969),
    (sym_concatenated_string, STATE 7017), (sym_string, STATE 6751), (sym_await, STATE 7017),
    (aux_sym_module_repeat1, STATE 927), (aux_sym_decorated_definition_repeat1, STATE 3670),
    (sym_identifier, ACTIONS 9), (anon_sym_import, ACTIONS 11), (anon_sym_from, ACTIONS 13),
    (anon_sym_LPAREN, ACTIONS 15), (anon_sym_STAR, ACTIONS 17), (anon_sym_print, ACTIONS 19),
    (anon_sym_comptime, ACTIONS 99), (anon_sym_assert, ACTIONS 23),
    (anon_sym___comptime_assert, ACTIONS 25), (anon_sym_return, ACTIONS 27),
    (anon_sym_del, ACTIONS 29), (anon_sym_raise, ACTIONS 31), (anon_sym_pass, ACTIONS 33),
    (anon_sym_break, ACTIONS 35), (anon_sym_continue, ACTIONS 37),
    (anon_sym___extension, ACTIONS 101), (anon_sym___mlir_region, ACTIONS 103),
    (anon_sym_if, ACTIONS 105), (anon_sym_match, ACTIONS 107), (anon_sym_async, ACTIONS 109),
    (anon_sym_for, ACTIONS 111), (anon_sym_while, ACTIONS 113), (anon_sym_try, ACTIONS 115),
    (anon_sym_with, ACTIONS 117), (anon_sym_def, ACTIONS 119), (anon_sym_fn, ACTIONS 119),
    (anon_sym_LBRACK, ACTIONS 59), (anon_sym_LBRACE, ACTIONS 61), (anon_sym_global, ACTIONS 63),
    (anon_sym_nonlocal, ACTIONS 65), (anon_sym_exec, ACTIONS 67), (anon_sym_type, ACTIONS 69),
    (anon_sym_class, ACTIONS 121), (anon_sym_struct, ACTIONS 121), (anon_sym_mut, ACTIONS 73),
    (anon_sym_out, ACTIONS 73), (anon_sym_trait, ACTIONS 123), (anon_sym_AT, ACTIONS 77),
    (anon_sym_DASH, ACTIONS 79), (anon_sym_PLUS, ACTIONS 79), (anon_sym_ref, ACTIONS 81),
    (anon_sym_var, ACTIONS 81), (anon_sym_not, ACTIONS 83), (anon_sym_TILDE, ACTIONS 79),
    (anon_sym_lambda, ACTIONS 85), (anon_sym_yield, ACTIONS 87), (sym_ellipsis, ACTIONS 89),
    (anon_sym___mlir_type, ACTIONS 91), (sym_integer, ACTIONS 93), (sym_float, ACTIONS 89),
    (anon_sym_await, ACTIONS 95), (sym_true, ACTIONS 93), (sym_false, ACTIONS 93),
    (sym_none, ACTIONS 93), (sym_comment, ACTIONS 3), (sym_line_continuation, ACTIONS 3),
    (sym__dedent, ACTIONS 125), (sym_string_start, ACTIONS 97)]"

definition parse_table_647 :: "(nat \<times> nat) list" where "parse_table_647 = [
    (sym__statement, STATE 927), (sym__simple_statements, STATE 927),
    (sym_import_statement, STATE 11814), (sym_future_import_statement, STATE 11814),
    (sym_import_from_statement, STATE 11814), (sym_print_statement, STATE 11814),
    (sym_assert_statement, STATE 11814), (sym_comptime_assert_statement, STATE 11814),
    (sym_expression_statement, STATE 11814), (sym_tuple_expression, STATE 12425),
    (sym_named_expression, STATE 7969), (sym__named_expression_lhs, STATE 12752),
    (sym_return_statement, STATE 11814), (sym_delete_statement, STATE 11814),
    (sym_raise_statement, STATE 11814), (sym_pass_statement, STATE 11814),
    (sym_break_statement, STATE 11814), (sym_continue_statement, STATE 11814),
    (sym_extension_definition, STATE 927), (sym_mlir_region, STATE 927),
    (sym_comptime_statement, STATE 927), (sym_if_statement, STATE 927),
    (sym_match_statement, STATE 927), (sym_for_statement, STATE 927),
    (sym_while_statement, STATE 927), (sym_try_statement, STATE 927),
    (sym_with_statement, STATE 927), (sym_function_definition, STATE 927),
    (sym_global_statement, STATE 11814), (sym_nonlocal_statement, STATE 11814),
    (sym_exec_statement, STATE 11814), (sym_type_alias_statement, STATE 11814),
    (sym_parameterized_alias_statement, STATE 11814), (sym_class_definition, STATE 927),
    (sym_trait_definition, STATE 927), (sym_decorated_definition, STATE 927),
    (sym_decorator, STATE 3670), (sym_block, STATE 5851), (sym_pattern, STATE 8086),
    (sym_tuple_pattern, STATE 8101), (sym_list_pattern, STATE 8101),
    (sym_list_splat_pattern, STATE 6819), (sym_as_pattern, STATE 7969),
    (sym_expression, STATE 9883), (sym_primary_expression, STATE 7326),
    (sym_comptime_expression, STATE 7017), (sym_transfer_expression, STATE 7017),
    (sym_not_operator, STATE 7969), (sym_boolean_operator, STATE 7969),
    (sym_binary_operator, STATE 7017), (sym_unary_operator, STATE 7017),
    (sym_comparison_operator, STATE 7969), (sym_lambda, STATE 7969),
    (sym_assignment, STATE 12425), (sym_augmented_assignment, STATE 12425),
    (sym_pattern_list, STATE 8578), (sym_yield, STATE 12425), (sym_attribute, STATE 6836),
    (sym_subscript, STATE 6838), (sym_call, STATE 6845), (sym_mlir_type, STATE 7017),
    (sym_list, STATE 7017), (sym_set, STATE 7017), (sym_tuple, STATE 7017),
    (sym_dictionary, STATE 7017), (sym_struct_literal, STATE 7017),
    (sym_list_comprehension, STATE 7017), (sym_dictionary_comprehension, STATE 7017),
    (sym_set_comprehension, STATE 7017), (sym_generator_expression, STATE 7017),
    (sym_parenthesized_expression, STATE 7017), (sym_conditional_expression, STATE 7969),
    (sym_concatenated_string, STATE 7017), (sym_string, STATE 6751), (sym_await, STATE 7017),
    (aux_sym_module_repeat1, STATE 927), (aux_sym_decorated_definition_repeat1, STATE 3670),
    (sym_identifier, ACTIONS 9), (anon_sym_import, ACTIONS 11), (anon_sym_from, ACTIONS 13),
    (anon_sym_LPAREN, ACTIONS 15), (anon_sym_STAR, ACTIONS 17), (anon_sym_print, ACTIONS 19),
    (anon_sym_comptime, ACTIONS 99), (anon_sym_assert, ACTIONS 23),
    (anon_sym___comptime_assert, ACTIONS 25), (anon_sym_return, ACTIONS 27),
    (anon_sym_del, ACTIONS 29), (anon_sym_raise, ACTIONS 31), (anon_sym_pass, ACTIONS 33),
    (anon_sym_break, ACTIONS 35), (anon_sym_continue, ACTIONS 37),
    (anon_sym___extension, ACTIONS 101), (anon_sym___mlir_region, ACTIONS 103),
    (anon_sym_if, ACTIONS 105), (anon_sym_match, ACTIONS 107), (anon_sym_async, ACTIONS 109),
    (anon_sym_for, ACTIONS 111), (anon_sym_while, ACTIONS 113), (anon_sym_try, ACTIONS 115),
    (anon_sym_with, ACTIONS 117), (anon_sym_def, ACTIONS 119), (anon_sym_fn, ACTIONS 119),
    (anon_sym_LBRACK, ACTIONS 59), (anon_sym_LBRACE, ACTIONS 61), (anon_sym_global, ACTIONS 63),
    (anon_sym_nonlocal, ACTIONS 65), (anon_sym_exec, ACTIONS 67), (anon_sym_type, ACTIONS 69),
    (anon_sym_class, ACTIONS 121), (anon_sym_struct, ACTIONS 121), (anon_sym_mut, ACTIONS 73),
    (anon_sym_out, ACTIONS 73), (anon_sym_trait, ACTIONS 123), (anon_sym_AT, ACTIONS 77),
    (anon_sym_DASH, ACTIONS 79), (anon_sym_PLUS, ACTIONS 79), (anon_sym_ref, ACTIONS 81),
    (anon_sym_var, ACTIONS 81), (anon_sym_not, ACTIONS 83), (anon_sym_TILDE, ACTIONS 79),
    (anon_sym_lambda, ACTIONS 85), (anon_sym_yield, ACTIONS 87), (sym_ellipsis, ACTIONS 89),
    (anon_sym___mlir_type, ACTIONS 91), (sym_integer, ACTIONS 93), (sym_float, ACTIONS 89),
    (anon_sym_await, ACTIONS 95), (sym_true, ACTIONS 93), (sym_false, ACTIONS 93),
    (sym_none, ACTIONS 93), (sym_comment, ACTIONS 3), (sym_line_continuation, ACTIONS 3),
    (sym__dedent, ACTIONS 125), (sym_string_start, ACTIONS 97)]"

definition parse_table_648 :: "(nat \<times> nat) list" where "parse_table_648 = [
    (sym__statement, STATE 927), (sym__simple_statements, STATE 927),
    (sym_import_statement, STATE 11814), (sym_future_import_statement, STATE 11814),
    (sym_import_from_statement, STATE 11814), (sym_print_statement, STATE 11814),
    (sym_assert_statement, STATE 11814), (sym_comptime_assert_statement, STATE 11814),
    (sym_expression_statement, STATE 11814), (sym_tuple_expression, STATE 12425),
    (sym_named_expression, STATE 7969), (sym__named_expression_lhs, STATE 12752),
    (sym_return_statement, STATE 11814), (sym_delete_statement, STATE 11814),
    (sym_raise_statement, STATE 11814), (sym_pass_statement, STATE 11814),
    (sym_break_statement, STATE 11814), (sym_continue_statement, STATE 11814),
    (sym_extension_definition, STATE 927), (sym_mlir_region, STATE 927),
    (sym_comptime_statement, STATE 927), (sym_if_statement, STATE 927),
    (sym_match_statement, STATE 927), (sym_for_statement, STATE 927),
    (sym_while_statement, STATE 927), (sym_try_statement, STATE 927),
    (sym_with_statement, STATE 927), (sym_function_definition, STATE 927),
    (sym_global_statement, STATE 11814), (sym_nonlocal_statement, STATE 11814),
    (sym_exec_statement, STATE 11814), (sym_type_alias_statement, STATE 11814),
    (sym_parameterized_alias_statement, STATE 11814), (sym_class_definition, STATE 927),
    (sym_trait_definition, STATE 927), (sym_decorated_definition, STATE 927),
    (sym_decorator, STATE 3670), (sym_block, STATE 5854), (sym_pattern, STATE 8086),
    (sym_tuple_pattern, STATE 8101), (sym_list_pattern, STATE 8101),
    (sym_list_splat_pattern, STATE 6819), (sym_as_pattern, STATE 7969),
    (sym_expression, STATE 9883), (sym_primary_expression, STATE 7326),
    (sym_comptime_expression, STATE 7017), (sym_transfer_expression, STATE 7017),
    (sym_not_operator, STATE 7969), (sym_boolean_operator, STATE 7969),
    (sym_binary_operator, STATE 7017), (sym_unary_operator, STATE 7017),
    (sym_comparison_operator, STATE 7969), (sym_lambda, STATE 7969),
    (sym_assignment, STATE 12425), (sym_augmented_assignment, STATE 12425),
    (sym_pattern_list, STATE 8578), (sym_yield, STATE 12425), (sym_attribute, STATE 6836),
    (sym_subscript, STATE 6838), (sym_call, STATE 6845), (sym_mlir_type, STATE 7017),
    (sym_list, STATE 7017), (sym_set, STATE 7017), (sym_tuple, STATE 7017),
    (sym_dictionary, STATE 7017), (sym_struct_literal, STATE 7017),
    (sym_list_comprehension, STATE 7017), (sym_dictionary_comprehension, STATE 7017),
    (sym_set_comprehension, STATE 7017), (sym_generator_expression, STATE 7017),
    (sym_parenthesized_expression, STATE 7017), (sym_conditional_expression, STATE 7969),
    (sym_concatenated_string, STATE 7017), (sym_string, STATE 6751), (sym_await, STATE 7017),
    (aux_sym_module_repeat1, STATE 927), (aux_sym_decorated_definition_repeat1, STATE 3670),
    (sym_identifier, ACTIONS 9), (anon_sym_import, ACTIONS 11), (anon_sym_from, ACTIONS 13),
    (anon_sym_LPAREN, ACTIONS 15), (anon_sym_STAR, ACTIONS 17), (anon_sym_print, ACTIONS 19),
    (anon_sym_comptime, ACTIONS 99), (anon_sym_assert, ACTIONS 23),
    (anon_sym___comptime_assert, ACTIONS 25), (anon_sym_return, ACTIONS 27),
    (anon_sym_del, ACTIONS 29), (anon_sym_raise, ACTIONS 31), (anon_sym_pass, ACTIONS 33),
    (anon_sym_break, ACTIONS 35), (anon_sym_continue, ACTIONS 37),
    (anon_sym___extension, ACTIONS 101), (anon_sym___mlir_region, ACTIONS 103),
    (anon_sym_if, ACTIONS 105), (anon_sym_match, ACTIONS 107), (anon_sym_async, ACTIONS 109),
    (anon_sym_for, ACTIONS 111), (anon_sym_while, ACTIONS 113), (anon_sym_try, ACTIONS 115),
    (anon_sym_with, ACTIONS 117), (anon_sym_def, ACTIONS 119), (anon_sym_fn, ACTIONS 119),
    (anon_sym_LBRACK, ACTIONS 59), (anon_sym_LBRACE, ACTIONS 61), (anon_sym_global, ACTIONS 63),
    (anon_sym_nonlocal, ACTIONS 65), (anon_sym_exec, ACTIONS 67), (anon_sym_type, ACTIONS 69),
    (anon_sym_class, ACTIONS 121), (anon_sym_struct, ACTIONS 121), (anon_sym_mut, ACTIONS 73),
    (anon_sym_out, ACTIONS 73), (anon_sym_trait, ACTIONS 123), (anon_sym_AT, ACTIONS 77),
    (anon_sym_DASH, ACTIONS 79), (anon_sym_PLUS, ACTIONS 79), (anon_sym_ref, ACTIONS 81),
    (anon_sym_var, ACTIONS 81), (anon_sym_not, ACTIONS 83), (anon_sym_TILDE, ACTIONS 79),
    (anon_sym_lambda, ACTIONS 85), (anon_sym_yield, ACTIONS 87), (sym_ellipsis, ACTIONS 89),
    (anon_sym___mlir_type, ACTIONS 91), (sym_integer, ACTIONS 93), (sym_float, ACTIONS 89),
    (anon_sym_await, ACTIONS 95), (sym_true, ACTIONS 93), (sym_false, ACTIONS 93),
    (sym_none, ACTIONS 93), (sym_comment, ACTIONS 3), (sym_line_continuation, ACTIONS 3),
    (sym__dedent, ACTIONS 125), (sym_string_start, ACTIONS 97)]"

definition parse_table_649 :: "(nat \<times> nat) list" where "parse_table_649 = [
    (sym__statement, STATE 927), (sym__simple_statements, STATE 927),
    (sym_import_statement, STATE 11814), (sym_future_import_statement, STATE 11814),
    (sym_import_from_statement, STATE 11814), (sym_print_statement, STATE 11814),
    (sym_assert_statement, STATE 11814), (sym_comptime_assert_statement, STATE 11814),
    (sym_expression_statement, STATE 11814), (sym_tuple_expression, STATE 12425),
    (sym_named_expression, STATE 7969), (sym__named_expression_lhs, STATE 12752),
    (sym_return_statement, STATE 11814), (sym_delete_statement, STATE 11814),
    (sym_raise_statement, STATE 11814), (sym_pass_statement, STATE 11814),
    (sym_break_statement, STATE 11814), (sym_continue_statement, STATE 11814),
    (sym_extension_definition, STATE 927), (sym_mlir_region, STATE 927),
    (sym_comptime_statement, STATE 927), (sym_if_statement, STATE 927),
    (sym_match_statement, STATE 927), (sym_for_statement, STATE 927),
    (sym_while_statement, STATE 927), (sym_try_statement, STATE 927),
    (sym_with_statement, STATE 927), (sym_function_definition, STATE 927),
    (sym_global_statement, STATE 11814), (sym_nonlocal_statement, STATE 11814),
    (sym_exec_statement, STATE 11814), (sym_type_alias_statement, STATE 11814),
    (sym_parameterized_alias_statement, STATE 11814), (sym_class_definition, STATE 927),
    (sym_trait_definition, STATE 927), (sym_decorated_definition, STATE 927),
    (sym_decorator, STATE 3670), (sym_block, STATE 5856), (sym_pattern, STATE 8086),
    (sym_tuple_pattern, STATE 8101), (sym_list_pattern, STATE 8101),
    (sym_list_splat_pattern, STATE 6819), (sym_as_pattern, STATE 7969),
    (sym_expression, STATE 9883), (sym_primary_expression, STATE 7326),
    (sym_comptime_expression, STATE 7017), (sym_transfer_expression, STATE 7017),
    (sym_not_operator, STATE 7969), (sym_boolean_operator, STATE 7969),
    (sym_binary_operator, STATE 7017), (sym_unary_operator, STATE 7017),
    (sym_comparison_operator, STATE 7969), (sym_lambda, STATE 7969),
    (sym_assignment, STATE 12425), (sym_augmented_assignment, STATE 12425),
    (sym_pattern_list, STATE 8578), (sym_yield, STATE 12425), (sym_attribute, STATE 6836),
    (sym_subscript, STATE 6838), (sym_call, STATE 6845), (sym_mlir_type, STATE 7017),
    (sym_list, STATE 7017), (sym_set, STATE 7017), (sym_tuple, STATE 7017),
    (sym_dictionary, STATE 7017), (sym_struct_literal, STATE 7017),
    (sym_list_comprehension, STATE 7017), (sym_dictionary_comprehension, STATE 7017),
    (sym_set_comprehension, STATE 7017), (sym_generator_expression, STATE 7017),
    (sym_parenthesized_expression, STATE 7017), (sym_conditional_expression, STATE 7969),
    (sym_concatenated_string, STATE 7017), (sym_string, STATE 6751), (sym_await, STATE 7017),
    (aux_sym_module_repeat1, STATE 927), (aux_sym_decorated_definition_repeat1, STATE 3670),
    (sym_identifier, ACTIONS 9), (anon_sym_import, ACTIONS 11), (anon_sym_from, ACTIONS 13),
    (anon_sym_LPAREN, ACTIONS 15), (anon_sym_STAR, ACTIONS 17), (anon_sym_print, ACTIONS 19),
    (anon_sym_comptime, ACTIONS 99), (anon_sym_assert, ACTIONS 23),
    (anon_sym___comptime_assert, ACTIONS 25), (anon_sym_return, ACTIONS 27),
    (anon_sym_del, ACTIONS 29), (anon_sym_raise, ACTIONS 31), (anon_sym_pass, ACTIONS 33),
    (anon_sym_break, ACTIONS 35), (anon_sym_continue, ACTIONS 37),
    (anon_sym___extension, ACTIONS 101), (anon_sym___mlir_region, ACTIONS 103),
    (anon_sym_if, ACTIONS 105), (anon_sym_match, ACTIONS 107), (anon_sym_async, ACTIONS 109),
    (anon_sym_for, ACTIONS 111), (anon_sym_while, ACTIONS 113), (anon_sym_try, ACTIONS 115),
    (anon_sym_with, ACTIONS 117), (anon_sym_def, ACTIONS 119), (anon_sym_fn, ACTIONS 119),
    (anon_sym_LBRACK, ACTIONS 59), (anon_sym_LBRACE, ACTIONS 61), (anon_sym_global, ACTIONS 63),
    (anon_sym_nonlocal, ACTIONS 65), (anon_sym_exec, ACTIONS 67), (anon_sym_type, ACTIONS 69),
    (anon_sym_class, ACTIONS 121), (anon_sym_struct, ACTIONS 121), (anon_sym_mut, ACTIONS 73),
    (anon_sym_out, ACTIONS 73), (anon_sym_trait, ACTIONS 123), (anon_sym_AT, ACTIONS 77),
    (anon_sym_DASH, ACTIONS 79), (anon_sym_PLUS, ACTIONS 79), (anon_sym_ref, ACTIONS 81),
    (anon_sym_var, ACTIONS 81), (anon_sym_not, ACTIONS 83), (anon_sym_TILDE, ACTIONS 79),
    (anon_sym_lambda, ACTIONS 85), (anon_sym_yield, ACTIONS 87), (sym_ellipsis, ACTIONS 89),
    (anon_sym___mlir_type, ACTIONS 91), (sym_integer, ACTIONS 93), (sym_float, ACTIONS 89),
    (anon_sym_await, ACTIONS 95), (sym_true, ACTIONS 93), (sym_false, ACTIONS 93),
    (sym_none, ACTIONS 93), (sym_comment, ACTIONS 3), (sym_line_continuation, ACTIONS 3),
    (sym__dedent, ACTIONS 125), (sym_string_start, ACTIONS 97)]"

definition parse_table_650 :: "(nat \<times> nat) list" where "parse_table_650 = [
    (sym__statement, STATE 927), (sym__simple_statements, STATE 927),
    (sym_import_statement, STATE 11814), (sym_future_import_statement, STATE 11814),
    (sym_import_from_statement, STATE 11814), (sym_print_statement, STATE 11814),
    (sym_assert_statement, STATE 11814), (sym_comptime_assert_statement, STATE 11814),
    (sym_expression_statement, STATE 11814), (sym_tuple_expression, STATE 12425),
    (sym_named_expression, STATE 7969), (sym__named_expression_lhs, STATE 12752),
    (sym_return_statement, STATE 11814), (sym_delete_statement, STATE 11814),
    (sym_raise_statement, STATE 11814), (sym_pass_statement, STATE 11814),
    (sym_break_statement, STATE 11814), (sym_continue_statement, STATE 11814),
    (sym_extension_definition, STATE 927), (sym_mlir_region, STATE 927),
    (sym_comptime_statement, STATE 927), (sym_if_statement, STATE 927),
    (sym_match_statement, STATE 927), (sym_for_statement, STATE 927),
    (sym_while_statement, STATE 927), (sym_try_statement, STATE 927),
    (sym_with_statement, STATE 927), (sym_function_definition, STATE 927),
    (sym_global_statement, STATE 11814), (sym_nonlocal_statement, STATE 11814),
    (sym_exec_statement, STATE 11814), (sym_type_alias_statement, STATE 11814),
    (sym_parameterized_alias_statement, STATE 11814), (sym_class_definition, STATE 927),
    (sym_trait_definition, STATE 927), (sym_decorated_definition, STATE 927),
    (sym_decorator, STATE 3670), (sym_block, STATE 5860), (sym_pattern, STATE 8086),
    (sym_tuple_pattern, STATE 8101), (sym_list_pattern, STATE 8101),
    (sym_list_splat_pattern, STATE 6819), (sym_as_pattern, STATE 7969),
    (sym_expression, STATE 9883), (sym_primary_expression, STATE 7326),
    (sym_comptime_expression, STATE 7017), (sym_transfer_expression, STATE 7017),
    (sym_not_operator, STATE 7969), (sym_boolean_operator, STATE 7969),
    (sym_binary_operator, STATE 7017), (sym_unary_operator, STATE 7017),
    (sym_comparison_operator, STATE 7969), (sym_lambda, STATE 7969),
    (sym_assignment, STATE 12425), (sym_augmented_assignment, STATE 12425),
    (sym_pattern_list, STATE 8578), (sym_yield, STATE 12425), (sym_attribute, STATE 6836),
    (sym_subscript, STATE 6838), (sym_call, STATE 6845), (sym_mlir_type, STATE 7017),
    (sym_list, STATE 7017), (sym_set, STATE 7017), (sym_tuple, STATE 7017),
    (sym_dictionary, STATE 7017), (sym_struct_literal, STATE 7017),
    (sym_list_comprehension, STATE 7017), (sym_dictionary_comprehension, STATE 7017),
    (sym_set_comprehension, STATE 7017), (sym_generator_expression, STATE 7017),
    (sym_parenthesized_expression, STATE 7017), (sym_conditional_expression, STATE 7969),
    (sym_concatenated_string, STATE 7017), (sym_string, STATE 6751), (sym_await, STATE 7017),
    (aux_sym_module_repeat1, STATE 927), (aux_sym_decorated_definition_repeat1, STATE 3670),
    (sym_identifier, ACTIONS 9), (anon_sym_import, ACTIONS 11), (anon_sym_from, ACTIONS 13),
    (anon_sym_LPAREN, ACTIONS 15), (anon_sym_STAR, ACTIONS 17), (anon_sym_print, ACTIONS 19),
    (anon_sym_comptime, ACTIONS 99), (anon_sym_assert, ACTIONS 23),
    (anon_sym___comptime_assert, ACTIONS 25), (anon_sym_return, ACTIONS 27),
    (anon_sym_del, ACTIONS 29), (anon_sym_raise, ACTIONS 31), (anon_sym_pass, ACTIONS 33),
    (anon_sym_break, ACTIONS 35), (anon_sym_continue, ACTIONS 37),
    (anon_sym___extension, ACTIONS 101), (anon_sym___mlir_region, ACTIONS 103),
    (anon_sym_if, ACTIONS 105), (anon_sym_match, ACTIONS 107), (anon_sym_async, ACTIONS 109),
    (anon_sym_for, ACTIONS 111), (anon_sym_while, ACTIONS 113), (anon_sym_try, ACTIONS 115),
    (anon_sym_with, ACTIONS 117), (anon_sym_def, ACTIONS 119), (anon_sym_fn, ACTIONS 119),
    (anon_sym_LBRACK, ACTIONS 59), (anon_sym_LBRACE, ACTIONS 61), (anon_sym_global, ACTIONS 63),
    (anon_sym_nonlocal, ACTIONS 65), (anon_sym_exec, ACTIONS 67), (anon_sym_type, ACTIONS 69),
    (anon_sym_class, ACTIONS 121), (anon_sym_struct, ACTIONS 121), (anon_sym_mut, ACTIONS 73),
    (anon_sym_out, ACTIONS 73), (anon_sym_trait, ACTIONS 123), (anon_sym_AT, ACTIONS 77),
    (anon_sym_DASH, ACTIONS 79), (anon_sym_PLUS, ACTIONS 79), (anon_sym_ref, ACTIONS 81),
    (anon_sym_var, ACTIONS 81), (anon_sym_not, ACTIONS 83), (anon_sym_TILDE, ACTIONS 79),
    (anon_sym_lambda, ACTIONS 85), (anon_sym_yield, ACTIONS 87), (sym_ellipsis, ACTIONS 89),
    (anon_sym___mlir_type, ACTIONS 91), (sym_integer, ACTIONS 93), (sym_float, ACTIONS 89),
    (anon_sym_await, ACTIONS 95), (sym_true, ACTIONS 93), (sym_false, ACTIONS 93),
    (sym_none, ACTIONS 93), (sym_comment, ACTIONS 3), (sym_line_continuation, ACTIONS 3),
    (sym__dedent, ACTIONS 125), (sym_string_start, ACTIONS 97)]"

definition parse_table_651 :: "(nat \<times> nat) list" where "parse_table_651 = [
    (sym__statement, STATE 927), (sym__simple_statements, STATE 927),
    (sym_import_statement, STATE 11814), (sym_future_import_statement, STATE 11814),
    (sym_import_from_statement, STATE 11814), (sym_print_statement, STATE 11814),
    (sym_assert_statement, STATE 11814), (sym_comptime_assert_statement, STATE 11814),
    (sym_expression_statement, STATE 11814), (sym_tuple_expression, STATE 12425),
    (sym_named_expression, STATE 7969), (sym__named_expression_lhs, STATE 12752),
    (sym_return_statement, STATE 11814), (sym_delete_statement, STATE 11814),
    (sym_raise_statement, STATE 11814), (sym_pass_statement, STATE 11814),
    (sym_break_statement, STATE 11814), (sym_continue_statement, STATE 11814),
    (sym_extension_definition, STATE 927), (sym_mlir_region, STATE 927),
    (sym_comptime_statement, STATE 927), (sym_if_statement, STATE 927),
    (sym_match_statement, STATE 927), (sym_for_statement, STATE 927),
    (sym_while_statement, STATE 927), (sym_try_statement, STATE 927),
    (sym_with_statement, STATE 927), (sym_function_definition, STATE 927),
    (sym_global_statement, STATE 11814), (sym_nonlocal_statement, STATE 11814),
    (sym_exec_statement, STATE 11814), (sym_type_alias_statement, STATE 11814),
    (sym_parameterized_alias_statement, STATE 11814), (sym_class_definition, STATE 927),
    (sym_trait_definition, STATE 927), (sym_decorated_definition, STATE 927),
    (sym_decorator, STATE 3670), (sym_block, STATE 5866), (sym_pattern, STATE 8086),
    (sym_tuple_pattern, STATE 8101), (sym_list_pattern, STATE 8101),
    (sym_list_splat_pattern, STATE 6819), (sym_as_pattern, STATE 7969),
    (sym_expression, STATE 9883), (sym_primary_expression, STATE 7326),
    (sym_comptime_expression, STATE 7017), (sym_transfer_expression, STATE 7017),
    (sym_not_operator, STATE 7969), (sym_boolean_operator, STATE 7969),
    (sym_binary_operator, STATE 7017), (sym_unary_operator, STATE 7017),
    (sym_comparison_operator, STATE 7969), (sym_lambda, STATE 7969),
    (sym_assignment, STATE 12425), (sym_augmented_assignment, STATE 12425),
    (sym_pattern_list, STATE 8578), (sym_yield, STATE 12425), (sym_attribute, STATE 6836),
    (sym_subscript, STATE 6838), (sym_call, STATE 6845), (sym_mlir_type, STATE 7017),
    (sym_list, STATE 7017), (sym_set, STATE 7017), (sym_tuple, STATE 7017),
    (sym_dictionary, STATE 7017), (sym_struct_literal, STATE 7017),
    (sym_list_comprehension, STATE 7017), (sym_dictionary_comprehension, STATE 7017),
    (sym_set_comprehension, STATE 7017), (sym_generator_expression, STATE 7017),
    (sym_parenthesized_expression, STATE 7017), (sym_conditional_expression, STATE 7969),
    (sym_concatenated_string, STATE 7017), (sym_string, STATE 6751), (sym_await, STATE 7017),
    (aux_sym_module_repeat1, STATE 927), (aux_sym_decorated_definition_repeat1, STATE 3670),
    (sym_identifier, ACTIONS 9), (anon_sym_import, ACTIONS 11), (anon_sym_from, ACTIONS 13),
    (anon_sym_LPAREN, ACTIONS 15), (anon_sym_STAR, ACTIONS 17), (anon_sym_print, ACTIONS 19),
    (anon_sym_comptime, ACTIONS 99), (anon_sym_assert, ACTIONS 23),
    (anon_sym___comptime_assert, ACTIONS 25), (anon_sym_return, ACTIONS 27),
    (anon_sym_del, ACTIONS 29), (anon_sym_raise, ACTIONS 31), (anon_sym_pass, ACTIONS 33),
    (anon_sym_break, ACTIONS 35), (anon_sym_continue, ACTIONS 37),
    (anon_sym___extension, ACTIONS 101), (anon_sym___mlir_region, ACTIONS 103),
    (anon_sym_if, ACTIONS 105), (anon_sym_match, ACTIONS 107), (anon_sym_async, ACTIONS 109),
    (anon_sym_for, ACTIONS 111), (anon_sym_while, ACTIONS 113), (anon_sym_try, ACTIONS 115),
    (anon_sym_with, ACTIONS 117), (anon_sym_def, ACTIONS 119), (anon_sym_fn, ACTIONS 119),
    (anon_sym_LBRACK, ACTIONS 59), (anon_sym_LBRACE, ACTIONS 61), (anon_sym_global, ACTIONS 63),
    (anon_sym_nonlocal, ACTIONS 65), (anon_sym_exec, ACTIONS 67), (anon_sym_type, ACTIONS 69),
    (anon_sym_class, ACTIONS 121), (anon_sym_struct, ACTIONS 121), (anon_sym_mut, ACTIONS 73),
    (anon_sym_out, ACTIONS 73), (anon_sym_trait, ACTIONS 123), (anon_sym_AT, ACTIONS 77),
    (anon_sym_DASH, ACTIONS 79), (anon_sym_PLUS, ACTIONS 79), (anon_sym_ref, ACTIONS 81),
    (anon_sym_var, ACTIONS 81), (anon_sym_not, ACTIONS 83), (anon_sym_TILDE, ACTIONS 79),
    (anon_sym_lambda, ACTIONS 85), (anon_sym_yield, ACTIONS 87), (sym_ellipsis, ACTIONS 89),
    (anon_sym___mlir_type, ACTIONS 91), (sym_integer, ACTIONS 93), (sym_float, ACTIONS 89),
    (anon_sym_await, ACTIONS 95), (sym_true, ACTIONS 93), (sym_false, ACTIONS 93),
    (sym_none, ACTIONS 93), (sym_comment, ACTIONS 3), (sym_line_continuation, ACTIONS 3),
    (sym__dedent, ACTIONS 125), (sym_string_start, ACTIONS 97)]"

definition parse_table_652 :: "(nat \<times> nat) list" where "parse_table_652 = [
    (sym__statement, STATE 927), (sym__simple_statements, STATE 927),
    (sym_import_statement, STATE 11814), (sym_future_import_statement, STATE 11814),
    (sym_import_from_statement, STATE 11814), (sym_print_statement, STATE 11814),
    (sym_assert_statement, STATE 11814), (sym_comptime_assert_statement, STATE 11814),
    (sym_expression_statement, STATE 11814), (sym_tuple_expression, STATE 12425),
    (sym_named_expression, STATE 7969), (sym__named_expression_lhs, STATE 12752),
    (sym_return_statement, STATE 11814), (sym_delete_statement, STATE 11814),
    (sym_raise_statement, STATE 11814), (sym_pass_statement, STATE 11814),
    (sym_break_statement, STATE 11814), (sym_continue_statement, STATE 11814),
    (sym_extension_definition, STATE 927), (sym_mlir_region, STATE 927),
    (sym_comptime_statement, STATE 927), (sym_if_statement, STATE 927),
    (sym_match_statement, STATE 927), (sym_for_statement, STATE 927),
    (sym_while_statement, STATE 927), (sym_try_statement, STATE 927),
    (sym_with_statement, STATE 927), (sym_function_definition, STATE 927),
    (sym_global_statement, STATE 11814), (sym_nonlocal_statement, STATE 11814),
    (sym_exec_statement, STATE 11814), (sym_type_alias_statement, STATE 11814),
    (sym_parameterized_alias_statement, STATE 11814), (sym_class_definition, STATE 927),
    (sym_trait_definition, STATE 927), (sym_decorated_definition, STATE 927),
    (sym_decorator, STATE 3670), (sym_block, STATE 5867), (sym_pattern, STATE 8086),
    (sym_tuple_pattern, STATE 8101), (sym_list_pattern, STATE 8101),
    (sym_list_splat_pattern, STATE 6819), (sym_as_pattern, STATE 7969),
    (sym_expression, STATE 9883), (sym_primary_expression, STATE 7326),
    (sym_comptime_expression, STATE 7017), (sym_transfer_expression, STATE 7017),
    (sym_not_operator, STATE 7969), (sym_boolean_operator, STATE 7969),
    (sym_binary_operator, STATE 7017), (sym_unary_operator, STATE 7017),
    (sym_comparison_operator, STATE 7969), (sym_lambda, STATE 7969),
    (sym_assignment, STATE 12425), (sym_augmented_assignment, STATE 12425),
    (sym_pattern_list, STATE 8578), (sym_yield, STATE 12425), (sym_attribute, STATE 6836),
    (sym_subscript, STATE 6838), (sym_call, STATE 6845), (sym_mlir_type, STATE 7017),
    (sym_list, STATE 7017), (sym_set, STATE 7017), (sym_tuple, STATE 7017),
    (sym_dictionary, STATE 7017), (sym_struct_literal, STATE 7017),
    (sym_list_comprehension, STATE 7017), (sym_dictionary_comprehension, STATE 7017),
    (sym_set_comprehension, STATE 7017), (sym_generator_expression, STATE 7017),
    (sym_parenthesized_expression, STATE 7017), (sym_conditional_expression, STATE 7969),
    (sym_concatenated_string, STATE 7017), (sym_string, STATE 6751), (sym_await, STATE 7017),
    (aux_sym_module_repeat1, STATE 927), (aux_sym_decorated_definition_repeat1, STATE 3670),
    (sym_identifier, ACTIONS 9), (anon_sym_import, ACTIONS 11), (anon_sym_from, ACTIONS 13),
    (anon_sym_LPAREN, ACTIONS 15), (anon_sym_STAR, ACTIONS 17), (anon_sym_print, ACTIONS 19),
    (anon_sym_comptime, ACTIONS 99), (anon_sym_assert, ACTIONS 23),
    (anon_sym___comptime_assert, ACTIONS 25), (anon_sym_return, ACTIONS 27),
    (anon_sym_del, ACTIONS 29), (anon_sym_raise, ACTIONS 31), (anon_sym_pass, ACTIONS 33),
    (anon_sym_break, ACTIONS 35), (anon_sym_continue, ACTIONS 37),
    (anon_sym___extension, ACTIONS 101), (anon_sym___mlir_region, ACTIONS 103),
    (anon_sym_if, ACTIONS 105), (anon_sym_match, ACTIONS 107), (anon_sym_async, ACTIONS 109),
    (anon_sym_for, ACTIONS 111), (anon_sym_while, ACTIONS 113), (anon_sym_try, ACTIONS 115),
    (anon_sym_with, ACTIONS 117), (anon_sym_def, ACTIONS 119), (anon_sym_fn, ACTIONS 119),
    (anon_sym_LBRACK, ACTIONS 59), (anon_sym_LBRACE, ACTIONS 61), (anon_sym_global, ACTIONS 63),
    (anon_sym_nonlocal, ACTIONS 65), (anon_sym_exec, ACTIONS 67), (anon_sym_type, ACTIONS 69),
    (anon_sym_class, ACTIONS 121), (anon_sym_struct, ACTIONS 121), (anon_sym_mut, ACTIONS 73),
    (anon_sym_out, ACTIONS 73), (anon_sym_trait, ACTIONS 123), (anon_sym_AT, ACTIONS 77),
    (anon_sym_DASH, ACTIONS 79), (anon_sym_PLUS, ACTIONS 79), (anon_sym_ref, ACTIONS 81),
    (anon_sym_var, ACTIONS 81), (anon_sym_not, ACTIONS 83), (anon_sym_TILDE, ACTIONS 79),
    (anon_sym_lambda, ACTIONS 85), (anon_sym_yield, ACTIONS 87), (sym_ellipsis, ACTIONS 89),
    (anon_sym___mlir_type, ACTIONS 91), (sym_integer, ACTIONS 93), (sym_float, ACTIONS 89),
    (anon_sym_await, ACTIONS 95), (sym_true, ACTIONS 93), (sym_false, ACTIONS 93),
    (sym_none, ACTIONS 93), (sym_comment, ACTIONS 3), (sym_line_continuation, ACTIONS 3),
    (sym__dedent, ACTIONS 125), (sym_string_start, ACTIONS 97)]"

definition parse_table_653 :: "(nat \<times> nat) list" where "parse_table_653 = [
    (sym__statement, STATE 927), (sym__simple_statements, STATE 927),
    (sym_import_statement, STATE 11814), (sym_future_import_statement, STATE 11814),
    (sym_import_from_statement, STATE 11814), (sym_print_statement, STATE 11814),
    (sym_assert_statement, STATE 11814), (sym_comptime_assert_statement, STATE 11814),
    (sym_expression_statement, STATE 11814), (sym_tuple_expression, STATE 12425),
    (sym_named_expression, STATE 7969), (sym__named_expression_lhs, STATE 12752),
    (sym_return_statement, STATE 11814), (sym_delete_statement, STATE 11814),
    (sym_raise_statement, STATE 11814), (sym_pass_statement, STATE 11814),
    (sym_break_statement, STATE 11814), (sym_continue_statement, STATE 11814),
    (sym_extension_definition, STATE 927), (sym_mlir_region, STATE 927),
    (sym_comptime_statement, STATE 927), (sym_if_statement, STATE 927),
    (sym_match_statement, STATE 927), (sym_for_statement, STATE 927),
    (sym_while_statement, STATE 927), (sym_try_statement, STATE 927),
    (sym_with_statement, STATE 927), (sym_function_definition, STATE 927),
    (sym_global_statement, STATE 11814), (sym_nonlocal_statement, STATE 11814),
    (sym_exec_statement, STATE 11814), (sym_type_alias_statement, STATE 11814),
    (sym_parameterized_alias_statement, STATE 11814), (sym_class_definition, STATE 927),
    (sym_trait_definition, STATE 927), (sym_decorated_definition, STATE 927),
    (sym_decorator, STATE 3670), (sym_block, STATE 5870), (sym_pattern, STATE 8086),
    (sym_tuple_pattern, STATE 8101), (sym_list_pattern, STATE 8101),
    (sym_list_splat_pattern, STATE 6819), (sym_as_pattern, STATE 7969),
    (sym_expression, STATE 9883), (sym_primary_expression, STATE 7326),
    (sym_comptime_expression, STATE 7017), (sym_transfer_expression, STATE 7017),
    (sym_not_operator, STATE 7969), (sym_boolean_operator, STATE 7969),
    (sym_binary_operator, STATE 7017), (sym_unary_operator, STATE 7017),
    (sym_comparison_operator, STATE 7969), (sym_lambda, STATE 7969),
    (sym_assignment, STATE 12425), (sym_augmented_assignment, STATE 12425),
    (sym_pattern_list, STATE 8578), (sym_yield, STATE 12425), (sym_attribute, STATE 6836),
    (sym_subscript, STATE 6838), (sym_call, STATE 6845), (sym_mlir_type, STATE 7017),
    (sym_list, STATE 7017), (sym_set, STATE 7017), (sym_tuple, STATE 7017),
    (sym_dictionary, STATE 7017), (sym_struct_literal, STATE 7017),
    (sym_list_comprehension, STATE 7017), (sym_dictionary_comprehension, STATE 7017),
    (sym_set_comprehension, STATE 7017), (sym_generator_expression, STATE 7017),
    (sym_parenthesized_expression, STATE 7017), (sym_conditional_expression, STATE 7969),
    (sym_concatenated_string, STATE 7017), (sym_string, STATE 6751), (sym_await, STATE 7017),
    (aux_sym_module_repeat1, STATE 927), (aux_sym_decorated_definition_repeat1, STATE 3670),
    (sym_identifier, ACTIONS 9), (anon_sym_import, ACTIONS 11), (anon_sym_from, ACTIONS 13),
    (anon_sym_LPAREN, ACTIONS 15), (anon_sym_STAR, ACTIONS 17), (anon_sym_print, ACTIONS 19),
    (anon_sym_comptime, ACTIONS 99), (anon_sym_assert, ACTIONS 23),
    (anon_sym___comptime_assert, ACTIONS 25), (anon_sym_return, ACTIONS 27),
    (anon_sym_del, ACTIONS 29), (anon_sym_raise, ACTIONS 31), (anon_sym_pass, ACTIONS 33),
    (anon_sym_break, ACTIONS 35), (anon_sym_continue, ACTIONS 37),
    (anon_sym___extension, ACTIONS 101), (anon_sym___mlir_region, ACTIONS 103),
    (anon_sym_if, ACTIONS 105), (anon_sym_match, ACTIONS 107), (anon_sym_async, ACTIONS 109),
    (anon_sym_for, ACTIONS 111), (anon_sym_while, ACTIONS 113), (anon_sym_try, ACTIONS 115),
    (anon_sym_with, ACTIONS 117), (anon_sym_def, ACTIONS 119), (anon_sym_fn, ACTIONS 119),
    (anon_sym_LBRACK, ACTIONS 59), (anon_sym_LBRACE, ACTIONS 61), (anon_sym_global, ACTIONS 63),
    (anon_sym_nonlocal, ACTIONS 65), (anon_sym_exec, ACTIONS 67), (anon_sym_type, ACTIONS 69),
    (anon_sym_class, ACTIONS 121), (anon_sym_struct, ACTIONS 121), (anon_sym_mut, ACTIONS 73),
    (anon_sym_out, ACTIONS 73), (anon_sym_trait, ACTIONS 123), (anon_sym_AT, ACTIONS 77),
    (anon_sym_DASH, ACTIONS 79), (anon_sym_PLUS, ACTIONS 79), (anon_sym_ref, ACTIONS 81),
    (anon_sym_var, ACTIONS 81), (anon_sym_not, ACTIONS 83), (anon_sym_TILDE, ACTIONS 79),
    (anon_sym_lambda, ACTIONS 85), (anon_sym_yield, ACTIONS 87), (sym_ellipsis, ACTIONS 89),
    (anon_sym___mlir_type, ACTIONS 91), (sym_integer, ACTIONS 93), (sym_float, ACTIONS 89),
    (anon_sym_await, ACTIONS 95), (sym_true, ACTIONS 93), (sym_false, ACTIONS 93),
    (sym_none, ACTIONS 93), (sym_comment, ACTIONS 3), (sym_line_continuation, ACTIONS 3),
    (sym__dedent, ACTIONS 125), (sym_string_start, ACTIONS 97)]"

definition parse_table_654 :: "(nat \<times> nat) list" where "parse_table_654 = [
    (sym__statement, STATE 927), (sym__simple_statements, STATE 927),
    (sym_import_statement, STATE 11814), (sym_future_import_statement, STATE 11814),
    (sym_import_from_statement, STATE 11814), (sym_print_statement, STATE 11814),
    (sym_assert_statement, STATE 11814), (sym_comptime_assert_statement, STATE 11814),
    (sym_expression_statement, STATE 11814), (sym_tuple_expression, STATE 12425),
    (sym_named_expression, STATE 7969), (sym__named_expression_lhs, STATE 12752),
    (sym_return_statement, STATE 11814), (sym_delete_statement, STATE 11814),
    (sym_raise_statement, STATE 11814), (sym_pass_statement, STATE 11814),
    (sym_break_statement, STATE 11814), (sym_continue_statement, STATE 11814),
    (sym_extension_definition, STATE 927), (sym_mlir_region, STATE 927),
    (sym_comptime_statement, STATE 927), (sym_if_statement, STATE 927),
    (sym_match_statement, STATE 927), (sym_for_statement, STATE 927),
    (sym_while_statement, STATE 927), (sym_try_statement, STATE 927),
    (sym_with_statement, STATE 927), (sym_function_definition, STATE 927),
    (sym_global_statement, STATE 11814), (sym_nonlocal_statement, STATE 11814),
    (sym_exec_statement, STATE 11814), (sym_type_alias_statement, STATE 11814),
    (sym_parameterized_alias_statement, STATE 11814), (sym_class_definition, STATE 927),
    (sym_trait_definition, STATE 927), (sym_decorated_definition, STATE 927),
    (sym_decorator, STATE 3670), (sym_block, STATE 5873), (sym_pattern, STATE 8086),
    (sym_tuple_pattern, STATE 8101), (sym_list_pattern, STATE 8101),
    (sym_list_splat_pattern, STATE 6819), (sym_as_pattern, STATE 7969),
    (sym_expression, STATE 9883), (sym_primary_expression, STATE 7326),
    (sym_comptime_expression, STATE 7017), (sym_transfer_expression, STATE 7017),
    (sym_not_operator, STATE 7969), (sym_boolean_operator, STATE 7969),
    (sym_binary_operator, STATE 7017), (sym_unary_operator, STATE 7017),
    (sym_comparison_operator, STATE 7969), (sym_lambda, STATE 7969),
    (sym_assignment, STATE 12425), (sym_augmented_assignment, STATE 12425),
    (sym_pattern_list, STATE 8578), (sym_yield, STATE 12425), (sym_attribute, STATE 6836),
    (sym_subscript, STATE 6838), (sym_call, STATE 6845), (sym_mlir_type, STATE 7017),
    (sym_list, STATE 7017), (sym_set, STATE 7017), (sym_tuple, STATE 7017),
    (sym_dictionary, STATE 7017), (sym_struct_literal, STATE 7017),
    (sym_list_comprehension, STATE 7017), (sym_dictionary_comprehension, STATE 7017),
    (sym_set_comprehension, STATE 7017), (sym_generator_expression, STATE 7017),
    (sym_parenthesized_expression, STATE 7017), (sym_conditional_expression, STATE 7969),
    (sym_concatenated_string, STATE 7017), (sym_string, STATE 6751), (sym_await, STATE 7017),
    (aux_sym_module_repeat1, STATE 927), (aux_sym_decorated_definition_repeat1, STATE 3670),
    (sym_identifier, ACTIONS 9), (anon_sym_import, ACTIONS 11), (anon_sym_from, ACTIONS 13),
    (anon_sym_LPAREN, ACTIONS 15), (anon_sym_STAR, ACTIONS 17), (anon_sym_print, ACTIONS 19),
    (anon_sym_comptime, ACTIONS 99), (anon_sym_assert, ACTIONS 23),
    (anon_sym___comptime_assert, ACTIONS 25), (anon_sym_return, ACTIONS 27),
    (anon_sym_del, ACTIONS 29), (anon_sym_raise, ACTIONS 31), (anon_sym_pass, ACTIONS 33),
    (anon_sym_break, ACTIONS 35), (anon_sym_continue, ACTIONS 37),
    (anon_sym___extension, ACTIONS 101), (anon_sym___mlir_region, ACTIONS 103),
    (anon_sym_if, ACTIONS 105), (anon_sym_match, ACTIONS 107), (anon_sym_async, ACTIONS 109),
    (anon_sym_for, ACTIONS 111), (anon_sym_while, ACTIONS 113), (anon_sym_try, ACTIONS 115),
    (anon_sym_with, ACTIONS 117), (anon_sym_def, ACTIONS 119), (anon_sym_fn, ACTIONS 119),
    (anon_sym_LBRACK, ACTIONS 59), (anon_sym_LBRACE, ACTIONS 61), (anon_sym_global, ACTIONS 63),
    (anon_sym_nonlocal, ACTIONS 65), (anon_sym_exec, ACTIONS 67), (anon_sym_type, ACTIONS 69),
    (anon_sym_class, ACTIONS 121), (anon_sym_struct, ACTIONS 121), (anon_sym_mut, ACTIONS 73),
    (anon_sym_out, ACTIONS 73), (anon_sym_trait, ACTIONS 123), (anon_sym_AT, ACTIONS 77),
    (anon_sym_DASH, ACTIONS 79), (anon_sym_PLUS, ACTIONS 79), (anon_sym_ref, ACTIONS 81),
    (anon_sym_var, ACTIONS 81), (anon_sym_not, ACTIONS 83), (anon_sym_TILDE, ACTIONS 79),
    (anon_sym_lambda, ACTIONS 85), (anon_sym_yield, ACTIONS 87), (sym_ellipsis, ACTIONS 89),
    (anon_sym___mlir_type, ACTIONS 91), (sym_integer, ACTIONS 93), (sym_float, ACTIONS 89),
    (anon_sym_await, ACTIONS 95), (sym_true, ACTIONS 93), (sym_false, ACTIONS 93),
    (sym_none, ACTIONS 93), (sym_comment, ACTIONS 3), (sym_line_continuation, ACTIONS 3),
    (sym__dedent, ACTIONS 125), (sym_string_start, ACTIONS 97)]"

definition parse_table_655 :: "(nat \<times> nat) list" where "parse_table_655 = [
    (sym__statement, STATE 927), (sym__simple_statements, STATE 927),
    (sym_import_statement, STATE 11814), (sym_future_import_statement, STATE 11814),
    (sym_import_from_statement, STATE 11814), (sym_print_statement, STATE 11814),
    (sym_assert_statement, STATE 11814), (sym_comptime_assert_statement, STATE 11814),
    (sym_expression_statement, STATE 11814), (sym_tuple_expression, STATE 12425),
    (sym_named_expression, STATE 7969), (sym__named_expression_lhs, STATE 12752),
    (sym_return_statement, STATE 11814), (sym_delete_statement, STATE 11814),
    (sym_raise_statement, STATE 11814), (sym_pass_statement, STATE 11814),
    (sym_break_statement, STATE 11814), (sym_continue_statement, STATE 11814),
    (sym_extension_definition, STATE 927), (sym_mlir_region, STATE 927),
    (sym_comptime_statement, STATE 927), (sym_if_statement, STATE 927),
    (sym_match_statement, STATE 927), (sym_for_statement, STATE 927),
    (sym_while_statement, STATE 927), (sym_try_statement, STATE 927),
    (sym_with_statement, STATE 927), (sym_function_definition, STATE 927),
    (sym_global_statement, STATE 11814), (sym_nonlocal_statement, STATE 11814),
    (sym_exec_statement, STATE 11814), (sym_type_alias_statement, STATE 11814),
    (sym_parameterized_alias_statement, STATE 11814), (sym_class_definition, STATE 927),
    (sym_trait_definition, STATE 927), (sym_decorated_definition, STATE 927),
    (sym_decorator, STATE 3670), (sym_block, STATE 5875), (sym_pattern, STATE 8086),
    (sym_tuple_pattern, STATE 8101), (sym_list_pattern, STATE 8101),
    (sym_list_splat_pattern, STATE 6819), (sym_as_pattern, STATE 7969),
    (sym_expression, STATE 9883), (sym_primary_expression, STATE 7326),
    (sym_comptime_expression, STATE 7017), (sym_transfer_expression, STATE 7017),
    (sym_not_operator, STATE 7969), (sym_boolean_operator, STATE 7969),
    (sym_binary_operator, STATE 7017), (sym_unary_operator, STATE 7017),
    (sym_comparison_operator, STATE 7969), (sym_lambda, STATE 7969),
    (sym_assignment, STATE 12425), (sym_augmented_assignment, STATE 12425),
    (sym_pattern_list, STATE 8578), (sym_yield, STATE 12425), (sym_attribute, STATE 6836),
    (sym_subscript, STATE 6838), (sym_call, STATE 6845), (sym_mlir_type, STATE 7017),
    (sym_list, STATE 7017), (sym_set, STATE 7017), (sym_tuple, STATE 7017),
    (sym_dictionary, STATE 7017), (sym_struct_literal, STATE 7017),
    (sym_list_comprehension, STATE 7017), (sym_dictionary_comprehension, STATE 7017),
    (sym_set_comprehension, STATE 7017), (sym_generator_expression, STATE 7017),
    (sym_parenthesized_expression, STATE 7017), (sym_conditional_expression, STATE 7969),
    (sym_concatenated_string, STATE 7017), (sym_string, STATE 6751), (sym_await, STATE 7017),
    (aux_sym_module_repeat1, STATE 927), (aux_sym_decorated_definition_repeat1, STATE 3670),
    (sym_identifier, ACTIONS 9), (anon_sym_import, ACTIONS 11), (anon_sym_from, ACTIONS 13),
    (anon_sym_LPAREN, ACTIONS 15), (anon_sym_STAR, ACTIONS 17), (anon_sym_print, ACTIONS 19),
    (anon_sym_comptime, ACTIONS 99), (anon_sym_assert, ACTIONS 23),
    (anon_sym___comptime_assert, ACTIONS 25), (anon_sym_return, ACTIONS 27),
    (anon_sym_del, ACTIONS 29), (anon_sym_raise, ACTIONS 31), (anon_sym_pass, ACTIONS 33),
    (anon_sym_break, ACTIONS 35), (anon_sym_continue, ACTIONS 37),
    (anon_sym___extension, ACTIONS 101), (anon_sym___mlir_region, ACTIONS 103),
    (anon_sym_if, ACTIONS 105), (anon_sym_match, ACTIONS 107), (anon_sym_async, ACTIONS 109),
    (anon_sym_for, ACTIONS 111), (anon_sym_while, ACTIONS 113), (anon_sym_try, ACTIONS 115),
    (anon_sym_with, ACTIONS 117), (anon_sym_def, ACTIONS 119), (anon_sym_fn, ACTIONS 119),
    (anon_sym_LBRACK, ACTIONS 59), (anon_sym_LBRACE, ACTIONS 61), (anon_sym_global, ACTIONS 63),
    (anon_sym_nonlocal, ACTIONS 65), (anon_sym_exec, ACTIONS 67), (anon_sym_type, ACTIONS 69),
    (anon_sym_class, ACTIONS 121), (anon_sym_struct, ACTIONS 121), (anon_sym_mut, ACTIONS 73),
    (anon_sym_out, ACTIONS 73), (anon_sym_trait, ACTIONS 123), (anon_sym_AT, ACTIONS 77),
    (anon_sym_DASH, ACTIONS 79), (anon_sym_PLUS, ACTIONS 79), (anon_sym_ref, ACTIONS 81),
    (anon_sym_var, ACTIONS 81), (anon_sym_not, ACTIONS 83), (anon_sym_TILDE, ACTIONS 79),
    (anon_sym_lambda, ACTIONS 85), (anon_sym_yield, ACTIONS 87), (sym_ellipsis, ACTIONS 89),
    (anon_sym___mlir_type, ACTIONS 91), (sym_integer, ACTIONS 93), (sym_float, ACTIONS 89),
    (anon_sym_await, ACTIONS 95), (sym_true, ACTIONS 93), (sym_false, ACTIONS 93),
    (sym_none, ACTIONS 93), (sym_comment, ACTIONS 3), (sym_line_continuation, ACTIONS 3),
    (sym__dedent, ACTIONS 125), (sym_string_start, ACTIONS 97)]"

definition parse_table_656 :: "(nat \<times> nat) list" where "parse_table_656 = [
    (sym__statement, STATE 927), (sym__simple_statements, STATE 927),
    (sym_import_statement, STATE 11814), (sym_future_import_statement, STATE 11814),
    (sym_import_from_statement, STATE 11814), (sym_print_statement, STATE 11814),
    (sym_assert_statement, STATE 11814), (sym_comptime_assert_statement, STATE 11814),
    (sym_expression_statement, STATE 11814), (sym_tuple_expression, STATE 12425),
    (sym_named_expression, STATE 7969), (sym__named_expression_lhs, STATE 12752),
    (sym_return_statement, STATE 11814), (sym_delete_statement, STATE 11814),
    (sym_raise_statement, STATE 11814), (sym_pass_statement, STATE 11814),
    (sym_break_statement, STATE 11814), (sym_continue_statement, STATE 11814),
    (sym_extension_definition, STATE 927), (sym_mlir_region, STATE 927),
    (sym_comptime_statement, STATE 927), (sym_if_statement, STATE 927),
    (sym_match_statement, STATE 927), (sym_for_statement, STATE 927),
    (sym_while_statement, STATE 927), (sym_try_statement, STATE 927),
    (sym_with_statement, STATE 927), (sym_function_definition, STATE 927),
    (sym_global_statement, STATE 11814), (sym_nonlocal_statement, STATE 11814),
    (sym_exec_statement, STATE 11814), (sym_type_alias_statement, STATE 11814),
    (sym_parameterized_alias_statement, STATE 11814), (sym_class_definition, STATE 927),
    (sym_trait_definition, STATE 927), (sym_decorated_definition, STATE 927),
    (sym_decorator, STATE 3670), (sym_block, STATE 5877), (sym_pattern, STATE 8086),
    (sym_tuple_pattern, STATE 8101), (sym_list_pattern, STATE 8101),
    (sym_list_splat_pattern, STATE 6819), (sym_as_pattern, STATE 7969),
    (sym_expression, STATE 9883), (sym_primary_expression, STATE 7326),
    (sym_comptime_expression, STATE 7017), (sym_transfer_expression, STATE 7017),
    (sym_not_operator, STATE 7969), (sym_boolean_operator, STATE 7969),
    (sym_binary_operator, STATE 7017), (sym_unary_operator, STATE 7017),
    (sym_comparison_operator, STATE 7969), (sym_lambda, STATE 7969),
    (sym_assignment, STATE 12425), (sym_augmented_assignment, STATE 12425),
    (sym_pattern_list, STATE 8578), (sym_yield, STATE 12425), (sym_attribute, STATE 6836),
    (sym_subscript, STATE 6838), (sym_call, STATE 6845), (sym_mlir_type, STATE 7017),
    (sym_list, STATE 7017), (sym_set, STATE 7017), (sym_tuple, STATE 7017),
    (sym_dictionary, STATE 7017), (sym_struct_literal, STATE 7017),
    (sym_list_comprehension, STATE 7017), (sym_dictionary_comprehension, STATE 7017),
    (sym_set_comprehension, STATE 7017), (sym_generator_expression, STATE 7017),
    (sym_parenthesized_expression, STATE 7017), (sym_conditional_expression, STATE 7969),
    (sym_concatenated_string, STATE 7017), (sym_string, STATE 6751), (sym_await, STATE 7017),
    (aux_sym_module_repeat1, STATE 927), (aux_sym_decorated_definition_repeat1, STATE 3670),
    (sym_identifier, ACTIONS 9), (anon_sym_import, ACTIONS 11), (anon_sym_from, ACTIONS 13),
    (anon_sym_LPAREN, ACTIONS 15), (anon_sym_STAR, ACTIONS 17), (anon_sym_print, ACTIONS 19),
    (anon_sym_comptime, ACTIONS 99), (anon_sym_assert, ACTIONS 23),
    (anon_sym___comptime_assert, ACTIONS 25), (anon_sym_return, ACTIONS 27),
    (anon_sym_del, ACTIONS 29), (anon_sym_raise, ACTIONS 31), (anon_sym_pass, ACTIONS 33),
    (anon_sym_break, ACTIONS 35), (anon_sym_continue, ACTIONS 37),
    (anon_sym___extension, ACTIONS 101), (anon_sym___mlir_region, ACTIONS 103),
    (anon_sym_if, ACTIONS 105), (anon_sym_match, ACTIONS 107), (anon_sym_async, ACTIONS 109),
    (anon_sym_for, ACTIONS 111), (anon_sym_while, ACTIONS 113), (anon_sym_try, ACTIONS 115),
    (anon_sym_with, ACTIONS 117), (anon_sym_def, ACTIONS 119), (anon_sym_fn, ACTIONS 119),
    (anon_sym_LBRACK, ACTIONS 59), (anon_sym_LBRACE, ACTIONS 61), (anon_sym_global, ACTIONS 63),
    (anon_sym_nonlocal, ACTIONS 65), (anon_sym_exec, ACTIONS 67), (anon_sym_type, ACTIONS 69),
    (anon_sym_class, ACTIONS 121), (anon_sym_struct, ACTIONS 121), (anon_sym_mut, ACTIONS 73),
    (anon_sym_out, ACTIONS 73), (anon_sym_trait, ACTIONS 123), (anon_sym_AT, ACTIONS 77),
    (anon_sym_DASH, ACTIONS 79), (anon_sym_PLUS, ACTIONS 79), (anon_sym_ref, ACTIONS 81),
    (anon_sym_var, ACTIONS 81), (anon_sym_not, ACTIONS 83), (anon_sym_TILDE, ACTIONS 79),
    (anon_sym_lambda, ACTIONS 85), (anon_sym_yield, ACTIONS 87), (sym_ellipsis, ACTIONS 89),
    (anon_sym___mlir_type, ACTIONS 91), (sym_integer, ACTIONS 93), (sym_float, ACTIONS 89),
    (anon_sym_await, ACTIONS 95), (sym_true, ACTIONS 93), (sym_false, ACTIONS 93),
    (sym_none, ACTIONS 93), (sym_comment, ACTIONS 3), (sym_line_continuation, ACTIONS 3),
    (sym__dedent, ACTIONS 125), (sym_string_start, ACTIONS 97)]"

definition parse_table_657 :: "(nat \<times> nat) list" where "parse_table_657 = [
    (sym__statement, STATE 927), (sym__simple_statements, STATE 927),
    (sym_import_statement, STATE 11814), (sym_future_import_statement, STATE 11814),
    (sym_import_from_statement, STATE 11814), (sym_print_statement, STATE 11814),
    (sym_assert_statement, STATE 11814), (sym_comptime_assert_statement, STATE 11814),
    (sym_expression_statement, STATE 11814), (sym_tuple_expression, STATE 12425),
    (sym_named_expression, STATE 7969), (sym__named_expression_lhs, STATE 12752),
    (sym_return_statement, STATE 11814), (sym_delete_statement, STATE 11814),
    (sym_raise_statement, STATE 11814), (sym_pass_statement, STATE 11814),
    (sym_break_statement, STATE 11814), (sym_continue_statement, STATE 11814),
    (sym_extension_definition, STATE 927), (sym_mlir_region, STATE 927),
    (sym_comptime_statement, STATE 927), (sym_if_statement, STATE 927),
    (sym_match_statement, STATE 927), (sym_for_statement, STATE 927),
    (sym_while_statement, STATE 927), (sym_try_statement, STATE 927),
    (sym_with_statement, STATE 927), (sym_function_definition, STATE 927),
    (sym_global_statement, STATE 11814), (sym_nonlocal_statement, STATE 11814),
    (sym_exec_statement, STATE 11814), (sym_type_alias_statement, STATE 11814),
    (sym_parameterized_alias_statement, STATE 11814), (sym_class_definition, STATE 927),
    (sym_trait_definition, STATE 927), (sym_decorated_definition, STATE 927),
    (sym_decorator, STATE 3670), (sym_block, STATE 5880), (sym_pattern, STATE 8086),
    (sym_tuple_pattern, STATE 8101), (sym_list_pattern, STATE 8101),
    (sym_list_splat_pattern, STATE 6819), (sym_as_pattern, STATE 7969),
    (sym_expression, STATE 9883), (sym_primary_expression, STATE 7326),
    (sym_comptime_expression, STATE 7017), (sym_transfer_expression, STATE 7017),
    (sym_not_operator, STATE 7969), (sym_boolean_operator, STATE 7969),
    (sym_binary_operator, STATE 7017), (sym_unary_operator, STATE 7017),
    (sym_comparison_operator, STATE 7969), (sym_lambda, STATE 7969),
    (sym_assignment, STATE 12425), (sym_augmented_assignment, STATE 12425),
    (sym_pattern_list, STATE 8578), (sym_yield, STATE 12425), (sym_attribute, STATE 6836),
    (sym_subscript, STATE 6838), (sym_call, STATE 6845), (sym_mlir_type, STATE 7017),
    (sym_list, STATE 7017), (sym_set, STATE 7017), (sym_tuple, STATE 7017),
    (sym_dictionary, STATE 7017), (sym_struct_literal, STATE 7017),
    (sym_list_comprehension, STATE 7017), (sym_dictionary_comprehension, STATE 7017),
    (sym_set_comprehension, STATE 7017), (sym_generator_expression, STATE 7017),
    (sym_parenthesized_expression, STATE 7017), (sym_conditional_expression, STATE 7969),
    (sym_concatenated_string, STATE 7017), (sym_string, STATE 6751), (sym_await, STATE 7017),
    (aux_sym_module_repeat1, STATE 927), (aux_sym_decorated_definition_repeat1, STATE 3670),
    (sym_identifier, ACTIONS 9), (anon_sym_import, ACTIONS 11), (anon_sym_from, ACTIONS 13),
    (anon_sym_LPAREN, ACTIONS 15), (anon_sym_STAR, ACTIONS 17), (anon_sym_print, ACTIONS 19),
    (anon_sym_comptime, ACTIONS 99), (anon_sym_assert, ACTIONS 23),
    (anon_sym___comptime_assert, ACTIONS 25), (anon_sym_return, ACTIONS 27),
    (anon_sym_del, ACTIONS 29), (anon_sym_raise, ACTIONS 31), (anon_sym_pass, ACTIONS 33),
    (anon_sym_break, ACTIONS 35), (anon_sym_continue, ACTIONS 37),
    (anon_sym___extension, ACTIONS 101), (anon_sym___mlir_region, ACTIONS 103),
    (anon_sym_if, ACTIONS 105), (anon_sym_match, ACTIONS 107), (anon_sym_async, ACTIONS 109),
    (anon_sym_for, ACTIONS 111), (anon_sym_while, ACTIONS 113), (anon_sym_try, ACTIONS 115),
    (anon_sym_with, ACTIONS 117), (anon_sym_def, ACTIONS 119), (anon_sym_fn, ACTIONS 119),
    (anon_sym_LBRACK, ACTIONS 59), (anon_sym_LBRACE, ACTIONS 61), (anon_sym_global, ACTIONS 63),
    (anon_sym_nonlocal, ACTIONS 65), (anon_sym_exec, ACTIONS 67), (anon_sym_type, ACTIONS 69),
    (anon_sym_class, ACTIONS 121), (anon_sym_struct, ACTIONS 121), (anon_sym_mut, ACTIONS 73),
    (anon_sym_out, ACTIONS 73), (anon_sym_trait, ACTIONS 123), (anon_sym_AT, ACTIONS 77),
    (anon_sym_DASH, ACTIONS 79), (anon_sym_PLUS, ACTIONS 79), (anon_sym_ref, ACTIONS 81),
    (anon_sym_var, ACTIONS 81), (anon_sym_not, ACTIONS 83), (anon_sym_TILDE, ACTIONS 79),
    (anon_sym_lambda, ACTIONS 85), (anon_sym_yield, ACTIONS 87), (sym_ellipsis, ACTIONS 89),
    (anon_sym___mlir_type, ACTIONS 91), (sym_integer, ACTIONS 93), (sym_float, ACTIONS 89),
    (anon_sym_await, ACTIONS 95), (sym_true, ACTIONS 93), (sym_false, ACTIONS 93),
    (sym_none, ACTIONS 93), (sym_comment, ACTIONS 3), (sym_line_continuation, ACTIONS 3),
    (sym__dedent, ACTIONS 125), (sym_string_start, ACTIONS 97)]"

definition parse_table_658 :: "(nat \<times> nat) list" where "parse_table_658 = [
    (sym__statement, STATE 927), (sym__simple_statements, STATE 927),
    (sym_import_statement, STATE 11814), (sym_future_import_statement, STATE 11814),
    (sym_import_from_statement, STATE 11814), (sym_print_statement, STATE 11814),
    (sym_assert_statement, STATE 11814), (sym_comptime_assert_statement, STATE 11814),
    (sym_expression_statement, STATE 11814), (sym_tuple_expression, STATE 12425),
    (sym_named_expression, STATE 7969), (sym__named_expression_lhs, STATE 12752),
    (sym_return_statement, STATE 11814), (sym_delete_statement, STATE 11814),
    (sym_raise_statement, STATE 11814), (sym_pass_statement, STATE 11814),
    (sym_break_statement, STATE 11814), (sym_continue_statement, STATE 11814),
    (sym_extension_definition, STATE 927), (sym_mlir_region, STATE 927),
    (sym_comptime_statement, STATE 927), (sym_if_statement, STATE 927),
    (sym_match_statement, STATE 927), (sym_for_statement, STATE 927),
    (sym_while_statement, STATE 927), (sym_try_statement, STATE 927),
    (sym_with_statement, STATE 927), (sym_function_definition, STATE 927),
    (sym_global_statement, STATE 11814), (sym_nonlocal_statement, STATE 11814),
    (sym_exec_statement, STATE 11814), (sym_type_alias_statement, STATE 11814),
    (sym_parameterized_alias_statement, STATE 11814), (sym_class_definition, STATE 927),
    (sym_trait_definition, STATE 927), (sym_decorated_definition, STATE 927),
    (sym_decorator, STATE 3670), (sym_block, STATE 5883), (sym_pattern, STATE 8086),
    (sym_tuple_pattern, STATE 8101), (sym_list_pattern, STATE 8101),
    (sym_list_splat_pattern, STATE 6819), (sym_as_pattern, STATE 7969),
    (sym_expression, STATE 9883), (sym_primary_expression, STATE 7326),
    (sym_comptime_expression, STATE 7017), (sym_transfer_expression, STATE 7017),
    (sym_not_operator, STATE 7969), (sym_boolean_operator, STATE 7969),
    (sym_binary_operator, STATE 7017), (sym_unary_operator, STATE 7017),
    (sym_comparison_operator, STATE 7969), (sym_lambda, STATE 7969),
    (sym_assignment, STATE 12425), (sym_augmented_assignment, STATE 12425),
    (sym_pattern_list, STATE 8578), (sym_yield, STATE 12425), (sym_attribute, STATE 6836),
    (sym_subscript, STATE 6838), (sym_call, STATE 6845), (sym_mlir_type, STATE 7017),
    (sym_list, STATE 7017), (sym_set, STATE 7017), (sym_tuple, STATE 7017),
    (sym_dictionary, STATE 7017), (sym_struct_literal, STATE 7017),
    (sym_list_comprehension, STATE 7017), (sym_dictionary_comprehension, STATE 7017),
    (sym_set_comprehension, STATE 7017), (sym_generator_expression, STATE 7017),
    (sym_parenthesized_expression, STATE 7017), (sym_conditional_expression, STATE 7969),
    (sym_concatenated_string, STATE 7017), (sym_string, STATE 6751), (sym_await, STATE 7017),
    (aux_sym_module_repeat1, STATE 927), (aux_sym_decorated_definition_repeat1, STATE 3670),
    (sym_identifier, ACTIONS 9), (anon_sym_import, ACTIONS 11), (anon_sym_from, ACTIONS 13),
    (anon_sym_LPAREN, ACTIONS 15), (anon_sym_STAR, ACTIONS 17), (anon_sym_print, ACTIONS 19),
    (anon_sym_comptime, ACTIONS 99), (anon_sym_assert, ACTIONS 23),
    (anon_sym___comptime_assert, ACTIONS 25), (anon_sym_return, ACTIONS 27),
    (anon_sym_del, ACTIONS 29), (anon_sym_raise, ACTIONS 31), (anon_sym_pass, ACTIONS 33),
    (anon_sym_break, ACTIONS 35), (anon_sym_continue, ACTIONS 37),
    (anon_sym___extension, ACTIONS 101), (anon_sym___mlir_region, ACTIONS 103),
    (anon_sym_if, ACTIONS 105), (anon_sym_match, ACTIONS 107), (anon_sym_async, ACTIONS 109),
    (anon_sym_for, ACTIONS 111), (anon_sym_while, ACTIONS 113), (anon_sym_try, ACTIONS 115),
    (anon_sym_with, ACTIONS 117), (anon_sym_def, ACTIONS 119), (anon_sym_fn, ACTIONS 119),
    (anon_sym_LBRACK, ACTIONS 59), (anon_sym_LBRACE, ACTIONS 61), (anon_sym_global, ACTIONS 63),
    (anon_sym_nonlocal, ACTIONS 65), (anon_sym_exec, ACTIONS 67), (anon_sym_type, ACTIONS 69),
    (anon_sym_class, ACTIONS 121), (anon_sym_struct, ACTIONS 121), (anon_sym_mut, ACTIONS 73),
    (anon_sym_out, ACTIONS 73), (anon_sym_trait, ACTIONS 123), (anon_sym_AT, ACTIONS 77),
    (anon_sym_DASH, ACTIONS 79), (anon_sym_PLUS, ACTIONS 79), (anon_sym_ref, ACTIONS 81),
    (anon_sym_var, ACTIONS 81), (anon_sym_not, ACTIONS 83), (anon_sym_TILDE, ACTIONS 79),
    (anon_sym_lambda, ACTIONS 85), (anon_sym_yield, ACTIONS 87), (sym_ellipsis, ACTIONS 89),
    (anon_sym___mlir_type, ACTIONS 91), (sym_integer, ACTIONS 93), (sym_float, ACTIONS 89),
    (anon_sym_await, ACTIONS 95), (sym_true, ACTIONS 93), (sym_false, ACTIONS 93),
    (sym_none, ACTIONS 93), (sym_comment, ACTIONS 3), (sym_line_continuation, ACTIONS 3),
    (sym__dedent, ACTIONS 125), (sym_string_start, ACTIONS 97)]"

definition parse_table_659 :: "(nat \<times> nat) list" where "parse_table_659 = [
    (sym__statement, STATE 927), (sym__simple_statements, STATE 927),
    (sym_import_statement, STATE 11814), (sym_future_import_statement, STATE 11814),
    (sym_import_from_statement, STATE 11814), (sym_print_statement, STATE 11814),
    (sym_assert_statement, STATE 11814), (sym_comptime_assert_statement, STATE 11814),
    (sym_expression_statement, STATE 11814), (sym_tuple_expression, STATE 12425),
    (sym_named_expression, STATE 7969), (sym__named_expression_lhs, STATE 12752),
    (sym_return_statement, STATE 11814), (sym_delete_statement, STATE 11814),
    (sym_raise_statement, STATE 11814), (sym_pass_statement, STATE 11814),
    (sym_break_statement, STATE 11814), (sym_continue_statement, STATE 11814),
    (sym_extension_definition, STATE 927), (sym_mlir_region, STATE 927),
    (sym_comptime_statement, STATE 927), (sym_if_statement, STATE 927),
    (sym_match_statement, STATE 927), (sym_for_statement, STATE 927),
    (sym_while_statement, STATE 927), (sym_try_statement, STATE 927),
    (sym_with_statement, STATE 927), (sym_function_definition, STATE 927),
    (sym_global_statement, STATE 11814), (sym_nonlocal_statement, STATE 11814),
    (sym_exec_statement, STATE 11814), (sym_type_alias_statement, STATE 11814),
    (sym_parameterized_alias_statement, STATE 11814), (sym_class_definition, STATE 927),
    (sym_trait_definition, STATE 927), (sym_decorated_definition, STATE 927),
    (sym_decorator, STATE 3670), (sym_block, STATE 5885), (sym_pattern, STATE 8086),
    (sym_tuple_pattern, STATE 8101), (sym_list_pattern, STATE 8101),
    (sym_list_splat_pattern, STATE 6819), (sym_as_pattern, STATE 7969),
    (sym_expression, STATE 9883), (sym_primary_expression, STATE 7326),
    (sym_comptime_expression, STATE 7017), (sym_transfer_expression, STATE 7017),
    (sym_not_operator, STATE 7969), (sym_boolean_operator, STATE 7969),
    (sym_binary_operator, STATE 7017), (sym_unary_operator, STATE 7017),
    (sym_comparison_operator, STATE 7969), (sym_lambda, STATE 7969),
    (sym_assignment, STATE 12425), (sym_augmented_assignment, STATE 12425),
    (sym_pattern_list, STATE 8578), (sym_yield, STATE 12425), (sym_attribute, STATE 6836),
    (sym_subscript, STATE 6838), (sym_call, STATE 6845), (sym_mlir_type, STATE 7017),
    (sym_list, STATE 7017), (sym_set, STATE 7017), (sym_tuple, STATE 7017),
    (sym_dictionary, STATE 7017), (sym_struct_literal, STATE 7017),
    (sym_list_comprehension, STATE 7017), (sym_dictionary_comprehension, STATE 7017),
    (sym_set_comprehension, STATE 7017), (sym_generator_expression, STATE 7017),
    (sym_parenthesized_expression, STATE 7017), (sym_conditional_expression, STATE 7969),
    (sym_concatenated_string, STATE 7017), (sym_string, STATE 6751), (sym_await, STATE 7017),
    (aux_sym_module_repeat1, STATE 927), (aux_sym_decorated_definition_repeat1, STATE 3670),
    (sym_identifier, ACTIONS 9), (anon_sym_import, ACTIONS 11), (anon_sym_from, ACTIONS 13),
    (anon_sym_LPAREN, ACTIONS 15), (anon_sym_STAR, ACTIONS 17), (anon_sym_print, ACTIONS 19),
    (anon_sym_comptime, ACTIONS 99), (anon_sym_assert, ACTIONS 23),
    (anon_sym___comptime_assert, ACTIONS 25), (anon_sym_return, ACTIONS 27),
    (anon_sym_del, ACTIONS 29), (anon_sym_raise, ACTIONS 31), (anon_sym_pass, ACTIONS 33),
    (anon_sym_break, ACTIONS 35), (anon_sym_continue, ACTIONS 37),
    (anon_sym___extension, ACTIONS 101), (anon_sym___mlir_region, ACTIONS 103),
    (anon_sym_if, ACTIONS 105), (anon_sym_match, ACTIONS 107), (anon_sym_async, ACTIONS 109),
    (anon_sym_for, ACTIONS 111), (anon_sym_while, ACTIONS 113), (anon_sym_try, ACTIONS 115),
    (anon_sym_with, ACTIONS 117), (anon_sym_def, ACTIONS 119), (anon_sym_fn, ACTIONS 119),
    (anon_sym_LBRACK, ACTIONS 59), (anon_sym_LBRACE, ACTIONS 61), (anon_sym_global, ACTIONS 63),
    (anon_sym_nonlocal, ACTIONS 65), (anon_sym_exec, ACTIONS 67), (anon_sym_type, ACTIONS 69),
    (anon_sym_class, ACTIONS 121), (anon_sym_struct, ACTIONS 121), (anon_sym_mut, ACTIONS 73),
    (anon_sym_out, ACTIONS 73), (anon_sym_trait, ACTIONS 123), (anon_sym_AT, ACTIONS 77),
    (anon_sym_DASH, ACTIONS 79), (anon_sym_PLUS, ACTIONS 79), (anon_sym_ref, ACTIONS 81),
    (anon_sym_var, ACTIONS 81), (anon_sym_not, ACTIONS 83), (anon_sym_TILDE, ACTIONS 79),
    (anon_sym_lambda, ACTIONS 85), (anon_sym_yield, ACTIONS 87), (sym_ellipsis, ACTIONS 89),
    (anon_sym___mlir_type, ACTIONS 91), (sym_integer, ACTIONS 93), (sym_float, ACTIONS 89),
    (anon_sym_await, ACTIONS 95), (sym_true, ACTIONS 93), (sym_false, ACTIONS 93),
    (sym_none, ACTIONS 93), (sym_comment, ACTIONS 3), (sym_line_continuation, ACTIONS 3),
    (sym__dedent, ACTIONS 125), (sym_string_start, ACTIONS 97)]"

definition parse_table_660 :: "(nat \<times> nat) list" where "parse_table_660 = [
    (sym__statement, STATE 927), (sym__simple_statements, STATE 927),
    (sym_import_statement, STATE 11814), (sym_future_import_statement, STATE 11814),
    (sym_import_from_statement, STATE 11814), (sym_print_statement, STATE 11814),
    (sym_assert_statement, STATE 11814), (sym_comptime_assert_statement, STATE 11814),
    (sym_expression_statement, STATE 11814), (sym_tuple_expression, STATE 12425),
    (sym_named_expression, STATE 7969), (sym__named_expression_lhs, STATE 12752),
    (sym_return_statement, STATE 11814), (sym_delete_statement, STATE 11814),
    (sym_raise_statement, STATE 11814), (sym_pass_statement, STATE 11814),
    (sym_break_statement, STATE 11814), (sym_continue_statement, STATE 11814),
    (sym_extension_definition, STATE 927), (sym_mlir_region, STATE 927),
    (sym_comptime_statement, STATE 927), (sym_if_statement, STATE 927),
    (sym_match_statement, STATE 927), (sym_for_statement, STATE 927),
    (sym_while_statement, STATE 927), (sym_try_statement, STATE 927),
    (sym_with_statement, STATE 927), (sym_function_definition, STATE 927),
    (sym_global_statement, STATE 11814), (sym_nonlocal_statement, STATE 11814),
    (sym_exec_statement, STATE 11814), (sym_type_alias_statement, STATE 11814),
    (sym_parameterized_alias_statement, STATE 11814), (sym_class_definition, STATE 927),
    (sym_trait_definition, STATE 927), (sym_decorated_definition, STATE 927),
    (sym_decorator, STATE 3670), (sym_block, STATE 5894), (sym_pattern, STATE 8086),
    (sym_tuple_pattern, STATE 8101), (sym_list_pattern, STATE 8101),
    (sym_list_splat_pattern, STATE 6819), (sym_as_pattern, STATE 7969),
    (sym_expression, STATE 9883), (sym_primary_expression, STATE 7326),
    (sym_comptime_expression, STATE 7017), (sym_transfer_expression, STATE 7017),
    (sym_not_operator, STATE 7969), (sym_boolean_operator, STATE 7969),
    (sym_binary_operator, STATE 7017), (sym_unary_operator, STATE 7017),
    (sym_comparison_operator, STATE 7969), (sym_lambda, STATE 7969),
    (sym_assignment, STATE 12425), (sym_augmented_assignment, STATE 12425),
    (sym_pattern_list, STATE 8578), (sym_yield, STATE 12425), (sym_attribute, STATE 6836),
    (sym_subscript, STATE 6838), (sym_call, STATE 6845), (sym_mlir_type, STATE 7017),
    (sym_list, STATE 7017), (sym_set, STATE 7017), (sym_tuple, STATE 7017),
    (sym_dictionary, STATE 7017), (sym_struct_literal, STATE 7017),
    (sym_list_comprehension, STATE 7017), (sym_dictionary_comprehension, STATE 7017),
    (sym_set_comprehension, STATE 7017), (sym_generator_expression, STATE 7017),
    (sym_parenthesized_expression, STATE 7017), (sym_conditional_expression, STATE 7969),
    (sym_concatenated_string, STATE 7017), (sym_string, STATE 6751), (sym_await, STATE 7017),
    (aux_sym_module_repeat1, STATE 927), (aux_sym_decorated_definition_repeat1, STATE 3670),
    (sym_identifier, ACTIONS 9), (anon_sym_import, ACTIONS 11), (anon_sym_from, ACTIONS 13),
    (anon_sym_LPAREN, ACTIONS 15), (anon_sym_STAR, ACTIONS 17), (anon_sym_print, ACTIONS 19),
    (anon_sym_comptime, ACTIONS 99), (anon_sym_assert, ACTIONS 23),
    (anon_sym___comptime_assert, ACTIONS 25), (anon_sym_return, ACTIONS 27),
    (anon_sym_del, ACTIONS 29), (anon_sym_raise, ACTIONS 31), (anon_sym_pass, ACTIONS 33),
    (anon_sym_break, ACTIONS 35), (anon_sym_continue, ACTIONS 37),
    (anon_sym___extension, ACTIONS 101), (anon_sym___mlir_region, ACTIONS 103),
    (anon_sym_if, ACTIONS 105), (anon_sym_match, ACTIONS 107), (anon_sym_async, ACTIONS 109),
    (anon_sym_for, ACTIONS 111), (anon_sym_while, ACTIONS 113), (anon_sym_try, ACTIONS 115),
    (anon_sym_with, ACTIONS 117), (anon_sym_def, ACTIONS 119), (anon_sym_fn, ACTIONS 119),
    (anon_sym_LBRACK, ACTIONS 59), (anon_sym_LBRACE, ACTIONS 61), (anon_sym_global, ACTIONS 63),
    (anon_sym_nonlocal, ACTIONS 65), (anon_sym_exec, ACTIONS 67), (anon_sym_type, ACTIONS 69),
    (anon_sym_class, ACTIONS 121), (anon_sym_struct, ACTIONS 121), (anon_sym_mut, ACTIONS 73),
    (anon_sym_out, ACTIONS 73), (anon_sym_trait, ACTIONS 123), (anon_sym_AT, ACTIONS 77),
    (anon_sym_DASH, ACTIONS 79), (anon_sym_PLUS, ACTIONS 79), (anon_sym_ref, ACTIONS 81),
    (anon_sym_var, ACTIONS 81), (anon_sym_not, ACTIONS 83), (anon_sym_TILDE, ACTIONS 79),
    (anon_sym_lambda, ACTIONS 85), (anon_sym_yield, ACTIONS 87), (sym_ellipsis, ACTIONS 89),
    (anon_sym___mlir_type, ACTIONS 91), (sym_integer, ACTIONS 93), (sym_float, ACTIONS 89),
    (anon_sym_await, ACTIONS 95), (sym_true, ACTIONS 93), (sym_false, ACTIONS 93),
    (sym_none, ACTIONS 93), (sym_comment, ACTIONS 3), (sym_line_continuation, ACTIONS 3),
    (sym__dedent, ACTIONS 125), (sym_string_start, ACTIONS 97)]"

definition parse_table_661 :: "(nat \<times> nat) list" where "parse_table_661 = [
    (sym__statement, STATE 927), (sym__simple_statements, STATE 927),
    (sym_import_statement, STATE 11814), (sym_future_import_statement, STATE 11814),
    (sym_import_from_statement, STATE 11814), (sym_print_statement, STATE 11814),
    (sym_assert_statement, STATE 11814), (sym_comptime_assert_statement, STATE 11814),
    (sym_expression_statement, STATE 11814), (sym_tuple_expression, STATE 12425),
    (sym_named_expression, STATE 7969), (sym__named_expression_lhs, STATE 12752),
    (sym_return_statement, STATE 11814), (sym_delete_statement, STATE 11814),
    (sym_raise_statement, STATE 11814), (sym_pass_statement, STATE 11814),
    (sym_break_statement, STATE 11814), (sym_continue_statement, STATE 11814),
    (sym_extension_definition, STATE 927), (sym_mlir_region, STATE 927),
    (sym_comptime_statement, STATE 927), (sym_if_statement, STATE 927),
    (sym_match_statement, STATE 927), (sym_for_statement, STATE 927),
    (sym_while_statement, STATE 927), (sym_try_statement, STATE 927),
    (sym_with_statement, STATE 927), (sym_function_definition, STATE 927),
    (sym_global_statement, STATE 11814), (sym_nonlocal_statement, STATE 11814),
    (sym_exec_statement, STATE 11814), (sym_type_alias_statement, STATE 11814),
    (sym_parameterized_alias_statement, STATE 11814), (sym_class_definition, STATE 927),
    (sym_trait_definition, STATE 927), (sym_decorated_definition, STATE 927),
    (sym_decorator, STATE 3670), (sym_block, STATE 5896), (sym_pattern, STATE 8086),
    (sym_tuple_pattern, STATE 8101), (sym_list_pattern, STATE 8101),
    (sym_list_splat_pattern, STATE 6819), (sym_as_pattern, STATE 7969),
    (sym_expression, STATE 9883), (sym_primary_expression, STATE 7326),
    (sym_comptime_expression, STATE 7017), (sym_transfer_expression, STATE 7017),
    (sym_not_operator, STATE 7969), (sym_boolean_operator, STATE 7969),
    (sym_binary_operator, STATE 7017), (sym_unary_operator, STATE 7017),
    (sym_comparison_operator, STATE 7969), (sym_lambda, STATE 7969),
    (sym_assignment, STATE 12425), (sym_augmented_assignment, STATE 12425),
    (sym_pattern_list, STATE 8578), (sym_yield, STATE 12425), (sym_attribute, STATE 6836),
    (sym_subscript, STATE 6838), (sym_call, STATE 6845), (sym_mlir_type, STATE 7017),
    (sym_list, STATE 7017), (sym_set, STATE 7017), (sym_tuple, STATE 7017),
    (sym_dictionary, STATE 7017), (sym_struct_literal, STATE 7017),
    (sym_list_comprehension, STATE 7017), (sym_dictionary_comprehension, STATE 7017),
    (sym_set_comprehension, STATE 7017), (sym_generator_expression, STATE 7017),
    (sym_parenthesized_expression, STATE 7017), (sym_conditional_expression, STATE 7969),
    (sym_concatenated_string, STATE 7017), (sym_string, STATE 6751), (sym_await, STATE 7017),
    (aux_sym_module_repeat1, STATE 927), (aux_sym_decorated_definition_repeat1, STATE 3670),
    (sym_identifier, ACTIONS 9), (anon_sym_import, ACTIONS 11), (anon_sym_from, ACTIONS 13),
    (anon_sym_LPAREN, ACTIONS 15), (anon_sym_STAR, ACTIONS 17), (anon_sym_print, ACTIONS 19),
    (anon_sym_comptime, ACTIONS 99), (anon_sym_assert, ACTIONS 23),
    (anon_sym___comptime_assert, ACTIONS 25), (anon_sym_return, ACTIONS 27),
    (anon_sym_del, ACTIONS 29), (anon_sym_raise, ACTIONS 31), (anon_sym_pass, ACTIONS 33),
    (anon_sym_break, ACTIONS 35), (anon_sym_continue, ACTIONS 37),
    (anon_sym___extension, ACTIONS 101), (anon_sym___mlir_region, ACTIONS 103),
    (anon_sym_if, ACTIONS 105), (anon_sym_match, ACTIONS 107), (anon_sym_async, ACTIONS 109),
    (anon_sym_for, ACTIONS 111), (anon_sym_while, ACTIONS 113), (anon_sym_try, ACTIONS 115),
    (anon_sym_with, ACTIONS 117), (anon_sym_def, ACTIONS 119), (anon_sym_fn, ACTIONS 119),
    (anon_sym_LBRACK, ACTIONS 59), (anon_sym_LBRACE, ACTIONS 61), (anon_sym_global, ACTIONS 63),
    (anon_sym_nonlocal, ACTIONS 65), (anon_sym_exec, ACTIONS 67), (anon_sym_type, ACTIONS 69),
    (anon_sym_class, ACTIONS 121), (anon_sym_struct, ACTIONS 121), (anon_sym_mut, ACTIONS 73),
    (anon_sym_out, ACTIONS 73), (anon_sym_trait, ACTIONS 123), (anon_sym_AT, ACTIONS 77),
    (anon_sym_DASH, ACTIONS 79), (anon_sym_PLUS, ACTIONS 79), (anon_sym_ref, ACTIONS 81),
    (anon_sym_var, ACTIONS 81), (anon_sym_not, ACTIONS 83), (anon_sym_TILDE, ACTIONS 79),
    (anon_sym_lambda, ACTIONS 85), (anon_sym_yield, ACTIONS 87), (sym_ellipsis, ACTIONS 89),
    (anon_sym___mlir_type, ACTIONS 91), (sym_integer, ACTIONS 93), (sym_float, ACTIONS 89),
    (anon_sym_await, ACTIONS 95), (sym_true, ACTIONS 93), (sym_false, ACTIONS 93),
    (sym_none, ACTIONS 93), (sym_comment, ACTIONS 3), (sym_line_continuation, ACTIONS 3),
    (sym__dedent, ACTIONS 125), (sym_string_start, ACTIONS 97)]"

definition parse_table_662 :: "(nat \<times> nat) list" where "parse_table_662 = [
    (sym__statement, STATE 927), (sym__simple_statements, STATE 927),
    (sym_import_statement, STATE 11814), (sym_future_import_statement, STATE 11814),
    (sym_import_from_statement, STATE 11814), (sym_print_statement, STATE 11814),
    (sym_assert_statement, STATE 11814), (sym_comptime_assert_statement, STATE 11814),
    (sym_expression_statement, STATE 11814), (sym_tuple_expression, STATE 12425),
    (sym_named_expression, STATE 7969), (sym__named_expression_lhs, STATE 12752),
    (sym_return_statement, STATE 11814), (sym_delete_statement, STATE 11814),
    (sym_raise_statement, STATE 11814), (sym_pass_statement, STATE 11814),
    (sym_break_statement, STATE 11814), (sym_continue_statement, STATE 11814),
    (sym_extension_definition, STATE 927), (sym_mlir_region, STATE 927),
    (sym_comptime_statement, STATE 927), (sym_if_statement, STATE 927),
    (sym_match_statement, STATE 927), (sym_for_statement, STATE 927),
    (sym_while_statement, STATE 927), (sym_try_statement, STATE 927),
    (sym_with_statement, STATE 927), (sym_function_definition, STATE 927),
    (sym_global_statement, STATE 11814), (sym_nonlocal_statement, STATE 11814),
    (sym_exec_statement, STATE 11814), (sym_type_alias_statement, STATE 11814),
    (sym_parameterized_alias_statement, STATE 11814), (sym_class_definition, STATE 927),
    (sym_trait_definition, STATE 927), (sym_decorated_definition, STATE 927),
    (sym_decorator, STATE 3670), (sym_block, STATE 5899), (sym_pattern, STATE 8086),
    (sym_tuple_pattern, STATE 8101), (sym_list_pattern, STATE 8101),
    (sym_list_splat_pattern, STATE 6819), (sym_as_pattern, STATE 7969),
    (sym_expression, STATE 9883), (sym_primary_expression, STATE 7326),
    (sym_comptime_expression, STATE 7017), (sym_transfer_expression, STATE 7017),
    (sym_not_operator, STATE 7969), (sym_boolean_operator, STATE 7969),
    (sym_binary_operator, STATE 7017), (sym_unary_operator, STATE 7017),
    (sym_comparison_operator, STATE 7969), (sym_lambda, STATE 7969),
    (sym_assignment, STATE 12425), (sym_augmented_assignment, STATE 12425),
    (sym_pattern_list, STATE 8578), (sym_yield, STATE 12425), (sym_attribute, STATE 6836),
    (sym_subscript, STATE 6838), (sym_call, STATE 6845), (sym_mlir_type, STATE 7017),
    (sym_list, STATE 7017), (sym_set, STATE 7017), (sym_tuple, STATE 7017),
    (sym_dictionary, STATE 7017), (sym_struct_literal, STATE 7017),
    (sym_list_comprehension, STATE 7017), (sym_dictionary_comprehension, STATE 7017),
    (sym_set_comprehension, STATE 7017), (sym_generator_expression, STATE 7017),
    (sym_parenthesized_expression, STATE 7017), (sym_conditional_expression, STATE 7969),
    (sym_concatenated_string, STATE 7017), (sym_string, STATE 6751), (sym_await, STATE 7017),
    (aux_sym_module_repeat1, STATE 927), (aux_sym_decorated_definition_repeat1, STATE 3670),
    (sym_identifier, ACTIONS 9), (anon_sym_import, ACTIONS 11), (anon_sym_from, ACTIONS 13),
    (anon_sym_LPAREN, ACTIONS 15), (anon_sym_STAR, ACTIONS 17), (anon_sym_print, ACTIONS 19),
    (anon_sym_comptime, ACTIONS 99), (anon_sym_assert, ACTIONS 23),
    (anon_sym___comptime_assert, ACTIONS 25), (anon_sym_return, ACTIONS 27),
    (anon_sym_del, ACTIONS 29), (anon_sym_raise, ACTIONS 31), (anon_sym_pass, ACTIONS 33),
    (anon_sym_break, ACTIONS 35), (anon_sym_continue, ACTIONS 37),
    (anon_sym___extension, ACTIONS 101), (anon_sym___mlir_region, ACTIONS 103),
    (anon_sym_if, ACTIONS 105), (anon_sym_match, ACTIONS 107), (anon_sym_async, ACTIONS 109),
    (anon_sym_for, ACTIONS 111), (anon_sym_while, ACTIONS 113), (anon_sym_try, ACTIONS 115),
    (anon_sym_with, ACTIONS 117), (anon_sym_def, ACTIONS 119), (anon_sym_fn, ACTIONS 119),
    (anon_sym_LBRACK, ACTIONS 59), (anon_sym_LBRACE, ACTIONS 61), (anon_sym_global, ACTIONS 63),
    (anon_sym_nonlocal, ACTIONS 65), (anon_sym_exec, ACTIONS 67), (anon_sym_type, ACTIONS 69),
    (anon_sym_class, ACTIONS 121), (anon_sym_struct, ACTIONS 121), (anon_sym_mut, ACTIONS 73),
    (anon_sym_out, ACTIONS 73), (anon_sym_trait, ACTIONS 123), (anon_sym_AT, ACTIONS 77),
    (anon_sym_DASH, ACTIONS 79), (anon_sym_PLUS, ACTIONS 79), (anon_sym_ref, ACTIONS 81),
    (anon_sym_var, ACTIONS 81), (anon_sym_not, ACTIONS 83), (anon_sym_TILDE, ACTIONS 79),
    (anon_sym_lambda, ACTIONS 85), (anon_sym_yield, ACTIONS 87), (sym_ellipsis, ACTIONS 89),
    (anon_sym___mlir_type, ACTIONS 91), (sym_integer, ACTIONS 93), (sym_float, ACTIONS 89),
    (anon_sym_await, ACTIONS 95), (sym_true, ACTIONS 93), (sym_false, ACTIONS 93),
    (sym_none, ACTIONS 93), (sym_comment, ACTIONS 3), (sym_line_continuation, ACTIONS 3),
    (sym__dedent, ACTIONS 125), (sym_string_start, ACTIONS 97)]"

definition parse_table_663 :: "(nat \<times> nat) list" where "parse_table_663 = [
    (sym__statement, STATE 927), (sym__simple_statements, STATE 927),
    (sym_import_statement, STATE 11814), (sym_future_import_statement, STATE 11814),
    (sym_import_from_statement, STATE 11814), (sym_print_statement, STATE 11814),
    (sym_assert_statement, STATE 11814), (sym_comptime_assert_statement, STATE 11814),
    (sym_expression_statement, STATE 11814), (sym_tuple_expression, STATE 12425),
    (sym_named_expression, STATE 7969), (sym__named_expression_lhs, STATE 12752),
    (sym_return_statement, STATE 11814), (sym_delete_statement, STATE 11814),
    (sym_raise_statement, STATE 11814), (sym_pass_statement, STATE 11814),
    (sym_break_statement, STATE 11814), (sym_continue_statement, STATE 11814),
    (sym_extension_definition, STATE 927), (sym_mlir_region, STATE 927),
    (sym_comptime_statement, STATE 927), (sym_if_statement, STATE 927),
    (sym_match_statement, STATE 927), (sym_for_statement, STATE 927),
    (sym_while_statement, STATE 927), (sym_try_statement, STATE 927),
    (sym_with_statement, STATE 927), (sym_function_definition, STATE 927),
    (sym_global_statement, STATE 11814), (sym_nonlocal_statement, STATE 11814),
    (sym_exec_statement, STATE 11814), (sym_type_alias_statement, STATE 11814),
    (sym_parameterized_alias_statement, STATE 11814), (sym_class_definition, STATE 927),
    (sym_trait_definition, STATE 927), (sym_decorated_definition, STATE 927),
    (sym_decorator, STATE 3670), (sym_block, STATE 5902), (sym_pattern, STATE 8086),
    (sym_tuple_pattern, STATE 8101), (sym_list_pattern, STATE 8101),
    (sym_list_splat_pattern, STATE 6819), (sym_as_pattern, STATE 7969),
    (sym_expression, STATE 9883), (sym_primary_expression, STATE 7326),
    (sym_comptime_expression, STATE 7017), (sym_transfer_expression, STATE 7017),
    (sym_not_operator, STATE 7969), (sym_boolean_operator, STATE 7969),
    (sym_binary_operator, STATE 7017), (sym_unary_operator, STATE 7017),
    (sym_comparison_operator, STATE 7969), (sym_lambda, STATE 7969),
    (sym_assignment, STATE 12425), (sym_augmented_assignment, STATE 12425),
    (sym_pattern_list, STATE 8578), (sym_yield, STATE 12425), (sym_attribute, STATE 6836),
    (sym_subscript, STATE 6838), (sym_call, STATE 6845), (sym_mlir_type, STATE 7017),
    (sym_list, STATE 7017), (sym_set, STATE 7017), (sym_tuple, STATE 7017),
    (sym_dictionary, STATE 7017), (sym_struct_literal, STATE 7017),
    (sym_list_comprehension, STATE 7017), (sym_dictionary_comprehension, STATE 7017),
    (sym_set_comprehension, STATE 7017), (sym_generator_expression, STATE 7017),
    (sym_parenthesized_expression, STATE 7017), (sym_conditional_expression, STATE 7969),
    (sym_concatenated_string, STATE 7017), (sym_string, STATE 6751), (sym_await, STATE 7017),
    (aux_sym_module_repeat1, STATE 927), (aux_sym_decorated_definition_repeat1, STATE 3670),
    (sym_identifier, ACTIONS 9), (anon_sym_import, ACTIONS 11), (anon_sym_from, ACTIONS 13),
    (anon_sym_LPAREN, ACTIONS 15), (anon_sym_STAR, ACTIONS 17), (anon_sym_print, ACTIONS 19),
    (anon_sym_comptime, ACTIONS 99), (anon_sym_assert, ACTIONS 23),
    (anon_sym___comptime_assert, ACTIONS 25), (anon_sym_return, ACTIONS 27),
    (anon_sym_del, ACTIONS 29), (anon_sym_raise, ACTIONS 31), (anon_sym_pass, ACTIONS 33),
    (anon_sym_break, ACTIONS 35), (anon_sym_continue, ACTIONS 37),
    (anon_sym___extension, ACTIONS 101), (anon_sym___mlir_region, ACTIONS 103),
    (anon_sym_if, ACTIONS 105), (anon_sym_match, ACTIONS 107), (anon_sym_async, ACTIONS 109),
    (anon_sym_for, ACTIONS 111), (anon_sym_while, ACTIONS 113), (anon_sym_try, ACTIONS 115),
    (anon_sym_with, ACTIONS 117), (anon_sym_def, ACTIONS 119), (anon_sym_fn, ACTIONS 119),
    (anon_sym_LBRACK, ACTIONS 59), (anon_sym_LBRACE, ACTIONS 61), (anon_sym_global, ACTIONS 63),
    (anon_sym_nonlocal, ACTIONS 65), (anon_sym_exec, ACTIONS 67), (anon_sym_type, ACTIONS 69),
    (anon_sym_class, ACTIONS 121), (anon_sym_struct, ACTIONS 121), (anon_sym_mut, ACTIONS 73),
    (anon_sym_out, ACTIONS 73), (anon_sym_trait, ACTIONS 123), (anon_sym_AT, ACTIONS 77),
    (anon_sym_DASH, ACTIONS 79), (anon_sym_PLUS, ACTIONS 79), (anon_sym_ref, ACTIONS 81),
    (anon_sym_var, ACTIONS 81), (anon_sym_not, ACTIONS 83), (anon_sym_TILDE, ACTIONS 79),
    (anon_sym_lambda, ACTIONS 85), (anon_sym_yield, ACTIONS 87), (sym_ellipsis, ACTIONS 89),
    (anon_sym___mlir_type, ACTIONS 91), (sym_integer, ACTIONS 93), (sym_float, ACTIONS 89),
    (anon_sym_await, ACTIONS 95), (sym_true, ACTIONS 93), (sym_false, ACTIONS 93),
    (sym_none, ACTIONS 93), (sym_comment, ACTIONS 3), (sym_line_continuation, ACTIONS 3),
    (sym__dedent, ACTIONS 125), (sym_string_start, ACTIONS 97)]"

definition parse_table_664 :: "(nat \<times> nat) list" where "parse_table_664 = [
    (sym__statement, STATE 927), (sym__simple_statements, STATE 927),
    (sym_import_statement, STATE 11814), (sym_future_import_statement, STATE 11814),
    (sym_import_from_statement, STATE 11814), (sym_print_statement, STATE 11814),
    (sym_assert_statement, STATE 11814), (sym_comptime_assert_statement, STATE 11814),
    (sym_expression_statement, STATE 11814), (sym_tuple_expression, STATE 12425),
    (sym_named_expression, STATE 7969), (sym__named_expression_lhs, STATE 12752),
    (sym_return_statement, STATE 11814), (sym_delete_statement, STATE 11814),
    (sym_raise_statement, STATE 11814), (sym_pass_statement, STATE 11814),
    (sym_break_statement, STATE 11814), (sym_continue_statement, STATE 11814),
    (sym_extension_definition, STATE 927), (sym_mlir_region, STATE 927),
    (sym_comptime_statement, STATE 927), (sym_if_statement, STATE 927),
    (sym_match_statement, STATE 927), (sym_for_statement, STATE 927),
    (sym_while_statement, STATE 927), (sym_try_statement, STATE 927),
    (sym_with_statement, STATE 927), (sym_function_definition, STATE 927),
    (sym_global_statement, STATE 11814), (sym_nonlocal_statement, STATE 11814),
    (sym_exec_statement, STATE 11814), (sym_type_alias_statement, STATE 11814),
    (sym_parameterized_alias_statement, STATE 11814), (sym_class_definition, STATE 927),
    (sym_trait_definition, STATE 927), (sym_decorated_definition, STATE 927),
    (sym_decorator, STATE 3670), (sym_block, STATE 5904), (sym_pattern, STATE 8086),
    (sym_tuple_pattern, STATE 8101), (sym_list_pattern, STATE 8101),
    (sym_list_splat_pattern, STATE 6819), (sym_as_pattern, STATE 7969),
    (sym_expression, STATE 9883), (sym_primary_expression, STATE 7326),
    (sym_comptime_expression, STATE 7017), (sym_transfer_expression, STATE 7017),
    (sym_not_operator, STATE 7969), (sym_boolean_operator, STATE 7969),
    (sym_binary_operator, STATE 7017), (sym_unary_operator, STATE 7017),
    (sym_comparison_operator, STATE 7969), (sym_lambda, STATE 7969),
    (sym_assignment, STATE 12425), (sym_augmented_assignment, STATE 12425),
    (sym_pattern_list, STATE 8578), (sym_yield, STATE 12425), (sym_attribute, STATE 6836),
    (sym_subscript, STATE 6838), (sym_call, STATE 6845), (sym_mlir_type, STATE 7017),
    (sym_list, STATE 7017), (sym_set, STATE 7017), (sym_tuple, STATE 7017),
    (sym_dictionary, STATE 7017), (sym_struct_literal, STATE 7017),
    (sym_list_comprehension, STATE 7017), (sym_dictionary_comprehension, STATE 7017),
    (sym_set_comprehension, STATE 7017), (sym_generator_expression, STATE 7017),
    (sym_parenthesized_expression, STATE 7017), (sym_conditional_expression, STATE 7969),
    (sym_concatenated_string, STATE 7017), (sym_string, STATE 6751), (sym_await, STATE 7017),
    (aux_sym_module_repeat1, STATE 927), (aux_sym_decorated_definition_repeat1, STATE 3670),
    (sym_identifier, ACTIONS 9), (anon_sym_import, ACTIONS 11), (anon_sym_from, ACTIONS 13),
    (anon_sym_LPAREN, ACTIONS 15), (anon_sym_STAR, ACTIONS 17), (anon_sym_print, ACTIONS 19),
    (anon_sym_comptime, ACTIONS 99), (anon_sym_assert, ACTIONS 23),
    (anon_sym___comptime_assert, ACTIONS 25), (anon_sym_return, ACTIONS 27),
    (anon_sym_del, ACTIONS 29), (anon_sym_raise, ACTIONS 31), (anon_sym_pass, ACTIONS 33),
    (anon_sym_break, ACTIONS 35), (anon_sym_continue, ACTIONS 37),
    (anon_sym___extension, ACTIONS 101), (anon_sym___mlir_region, ACTIONS 103),
    (anon_sym_if, ACTIONS 105), (anon_sym_match, ACTIONS 107), (anon_sym_async, ACTIONS 109),
    (anon_sym_for, ACTIONS 111), (anon_sym_while, ACTIONS 113), (anon_sym_try, ACTIONS 115),
    (anon_sym_with, ACTIONS 117), (anon_sym_def, ACTIONS 119), (anon_sym_fn, ACTIONS 119),
    (anon_sym_LBRACK, ACTIONS 59), (anon_sym_LBRACE, ACTIONS 61), (anon_sym_global, ACTIONS 63),
    (anon_sym_nonlocal, ACTIONS 65), (anon_sym_exec, ACTIONS 67), (anon_sym_type, ACTIONS 69),
    (anon_sym_class, ACTIONS 121), (anon_sym_struct, ACTIONS 121), (anon_sym_mut, ACTIONS 73),
    (anon_sym_out, ACTIONS 73), (anon_sym_trait, ACTIONS 123), (anon_sym_AT, ACTIONS 77),
    (anon_sym_DASH, ACTIONS 79), (anon_sym_PLUS, ACTIONS 79), (anon_sym_ref, ACTIONS 81),
    (anon_sym_var, ACTIONS 81), (anon_sym_not, ACTIONS 83), (anon_sym_TILDE, ACTIONS 79),
    (anon_sym_lambda, ACTIONS 85), (anon_sym_yield, ACTIONS 87), (sym_ellipsis, ACTIONS 89),
    (anon_sym___mlir_type, ACTIONS 91), (sym_integer, ACTIONS 93), (sym_float, ACTIONS 89),
    (anon_sym_await, ACTIONS 95), (sym_true, ACTIONS 93), (sym_false, ACTIONS 93),
    (sym_none, ACTIONS 93), (sym_comment, ACTIONS 3), (sym_line_continuation, ACTIONS 3),
    (sym__dedent, ACTIONS 125), (sym_string_start, ACTIONS 97)]"

definition parse_table_665 :: "(nat \<times> nat) list" where "parse_table_665 = [
    (sym__statement, STATE 927), (sym__simple_statements, STATE 927),
    (sym_import_statement, STATE 11814), (sym_future_import_statement, STATE 11814),
    (sym_import_from_statement, STATE 11814), (sym_print_statement, STATE 11814),
    (sym_assert_statement, STATE 11814), (sym_comptime_assert_statement, STATE 11814),
    (sym_expression_statement, STATE 11814), (sym_tuple_expression, STATE 12425),
    (sym_named_expression, STATE 7969), (sym__named_expression_lhs, STATE 12752),
    (sym_return_statement, STATE 11814), (sym_delete_statement, STATE 11814),
    (sym_raise_statement, STATE 11814), (sym_pass_statement, STATE 11814),
    (sym_break_statement, STATE 11814), (sym_continue_statement, STATE 11814),
    (sym_extension_definition, STATE 927), (sym_mlir_region, STATE 927),
    (sym_comptime_statement, STATE 927), (sym_if_statement, STATE 927),
    (sym_match_statement, STATE 927), (sym_for_statement, STATE 927),
    (sym_while_statement, STATE 927), (sym_try_statement, STATE 927),
    (sym_with_statement, STATE 927), (sym_function_definition, STATE 927),
    (sym_global_statement, STATE 11814), (sym_nonlocal_statement, STATE 11814),
    (sym_exec_statement, STATE 11814), (sym_type_alias_statement, STATE 11814),
    (sym_parameterized_alias_statement, STATE 11814), (sym_class_definition, STATE 927),
    (sym_trait_definition, STATE 927), (sym_decorated_definition, STATE 927),
    (sym_decorator, STATE 3670), (sym_block, STATE 5910), (sym_pattern, STATE 8086),
    (sym_tuple_pattern, STATE 8101), (sym_list_pattern, STATE 8101),
    (sym_list_splat_pattern, STATE 6819), (sym_as_pattern, STATE 7969),
    (sym_expression, STATE 9883), (sym_primary_expression, STATE 7326),
    (sym_comptime_expression, STATE 7017), (sym_transfer_expression, STATE 7017),
    (sym_not_operator, STATE 7969), (sym_boolean_operator, STATE 7969),
    (sym_binary_operator, STATE 7017), (sym_unary_operator, STATE 7017),
    (sym_comparison_operator, STATE 7969), (sym_lambda, STATE 7969),
    (sym_assignment, STATE 12425), (sym_augmented_assignment, STATE 12425),
    (sym_pattern_list, STATE 8578), (sym_yield, STATE 12425), (sym_attribute, STATE 6836),
    (sym_subscript, STATE 6838), (sym_call, STATE 6845), (sym_mlir_type, STATE 7017),
    (sym_list, STATE 7017), (sym_set, STATE 7017), (sym_tuple, STATE 7017),
    (sym_dictionary, STATE 7017), (sym_struct_literal, STATE 7017),
    (sym_list_comprehension, STATE 7017), (sym_dictionary_comprehension, STATE 7017),
    (sym_set_comprehension, STATE 7017), (sym_generator_expression, STATE 7017),
    (sym_parenthesized_expression, STATE 7017), (sym_conditional_expression, STATE 7969),
    (sym_concatenated_string, STATE 7017), (sym_string, STATE 6751), (sym_await, STATE 7017),
    (aux_sym_module_repeat1, STATE 927), (aux_sym_decorated_definition_repeat1, STATE 3670),
    (sym_identifier, ACTIONS 9), (anon_sym_import, ACTIONS 11), (anon_sym_from, ACTIONS 13),
    (anon_sym_LPAREN, ACTIONS 15), (anon_sym_STAR, ACTIONS 17), (anon_sym_print, ACTIONS 19),
    (anon_sym_comptime, ACTIONS 99), (anon_sym_assert, ACTIONS 23),
    (anon_sym___comptime_assert, ACTIONS 25), (anon_sym_return, ACTIONS 27),
    (anon_sym_del, ACTIONS 29), (anon_sym_raise, ACTIONS 31), (anon_sym_pass, ACTIONS 33),
    (anon_sym_break, ACTIONS 35), (anon_sym_continue, ACTIONS 37),
    (anon_sym___extension, ACTIONS 101), (anon_sym___mlir_region, ACTIONS 103),
    (anon_sym_if, ACTIONS 105), (anon_sym_match, ACTIONS 107), (anon_sym_async, ACTIONS 109),
    (anon_sym_for, ACTIONS 111), (anon_sym_while, ACTIONS 113), (anon_sym_try, ACTIONS 115),
    (anon_sym_with, ACTIONS 117), (anon_sym_def, ACTIONS 119), (anon_sym_fn, ACTIONS 119),
    (anon_sym_LBRACK, ACTIONS 59), (anon_sym_LBRACE, ACTIONS 61), (anon_sym_global, ACTIONS 63),
    (anon_sym_nonlocal, ACTIONS 65), (anon_sym_exec, ACTIONS 67), (anon_sym_type, ACTIONS 69),
    (anon_sym_class, ACTIONS 121), (anon_sym_struct, ACTIONS 121), (anon_sym_mut, ACTIONS 73),
    (anon_sym_out, ACTIONS 73), (anon_sym_trait, ACTIONS 123), (anon_sym_AT, ACTIONS 77),
    (anon_sym_DASH, ACTIONS 79), (anon_sym_PLUS, ACTIONS 79), (anon_sym_ref, ACTIONS 81),
    (anon_sym_var, ACTIONS 81), (anon_sym_not, ACTIONS 83), (anon_sym_TILDE, ACTIONS 79),
    (anon_sym_lambda, ACTIONS 85), (anon_sym_yield, ACTIONS 87), (sym_ellipsis, ACTIONS 89),
    (anon_sym___mlir_type, ACTIONS 91), (sym_integer, ACTIONS 93), (sym_float, ACTIONS 89),
    (anon_sym_await, ACTIONS 95), (sym_true, ACTIONS 93), (sym_false, ACTIONS 93),
    (sym_none, ACTIONS 93), (sym_comment, ACTIONS 3), (sym_line_continuation, ACTIONS 3),
    (sym__dedent, ACTIONS 125), (sym_string_start, ACTIONS 97)]"

definition parse_table_666 :: "(nat \<times> nat) list" where "parse_table_666 = [
    (sym__statement, STATE 927), (sym__simple_statements, STATE 927),
    (sym_import_statement, STATE 11814), (sym_future_import_statement, STATE 11814),
    (sym_import_from_statement, STATE 11814), (sym_print_statement, STATE 11814),
    (sym_assert_statement, STATE 11814), (sym_comptime_assert_statement, STATE 11814),
    (sym_expression_statement, STATE 11814), (sym_tuple_expression, STATE 12425),
    (sym_named_expression, STATE 7969), (sym__named_expression_lhs, STATE 12752),
    (sym_return_statement, STATE 11814), (sym_delete_statement, STATE 11814),
    (sym_raise_statement, STATE 11814), (sym_pass_statement, STATE 11814),
    (sym_break_statement, STATE 11814), (sym_continue_statement, STATE 11814),
    (sym_extension_definition, STATE 927), (sym_mlir_region, STATE 927),
    (sym_comptime_statement, STATE 927), (sym_if_statement, STATE 927),
    (sym_match_statement, STATE 927), (sym_for_statement, STATE 927),
    (sym_while_statement, STATE 927), (sym_try_statement, STATE 927),
    (sym_with_statement, STATE 927), (sym_function_definition, STATE 927),
    (sym_global_statement, STATE 11814), (sym_nonlocal_statement, STATE 11814),
    (sym_exec_statement, STATE 11814), (sym_type_alias_statement, STATE 11814),
    (sym_parameterized_alias_statement, STATE 11814), (sym_class_definition, STATE 927),
    (sym_trait_definition, STATE 927), (sym_decorated_definition, STATE 927),
    (sym_decorator, STATE 3670), (sym_block, STATE 5912), (sym_pattern, STATE 8086),
    (sym_tuple_pattern, STATE 8101), (sym_list_pattern, STATE 8101),
    (sym_list_splat_pattern, STATE 6819), (sym_as_pattern, STATE 7969),
    (sym_expression, STATE 9883), (sym_primary_expression, STATE 7326),
    (sym_comptime_expression, STATE 7017), (sym_transfer_expression, STATE 7017),
    (sym_not_operator, STATE 7969), (sym_boolean_operator, STATE 7969),
    (sym_binary_operator, STATE 7017), (sym_unary_operator, STATE 7017),
    (sym_comparison_operator, STATE 7969), (sym_lambda, STATE 7969),
    (sym_assignment, STATE 12425), (sym_augmented_assignment, STATE 12425),
    (sym_pattern_list, STATE 8578), (sym_yield, STATE 12425), (sym_attribute, STATE 6836),
    (sym_subscript, STATE 6838), (sym_call, STATE 6845), (sym_mlir_type, STATE 7017),
    (sym_list, STATE 7017), (sym_set, STATE 7017), (sym_tuple, STATE 7017),
    (sym_dictionary, STATE 7017), (sym_struct_literal, STATE 7017),
    (sym_list_comprehension, STATE 7017), (sym_dictionary_comprehension, STATE 7017),
    (sym_set_comprehension, STATE 7017), (sym_generator_expression, STATE 7017),
    (sym_parenthesized_expression, STATE 7017), (sym_conditional_expression, STATE 7969),
    (sym_concatenated_string, STATE 7017), (sym_string, STATE 6751), (sym_await, STATE 7017),
    (aux_sym_module_repeat1, STATE 927), (aux_sym_decorated_definition_repeat1, STATE 3670),
    (sym_identifier, ACTIONS 9), (anon_sym_import, ACTIONS 11), (anon_sym_from, ACTIONS 13),
    (anon_sym_LPAREN, ACTIONS 15), (anon_sym_STAR, ACTIONS 17), (anon_sym_print, ACTIONS 19),
    (anon_sym_comptime, ACTIONS 99), (anon_sym_assert, ACTIONS 23),
    (anon_sym___comptime_assert, ACTIONS 25), (anon_sym_return, ACTIONS 27),
    (anon_sym_del, ACTIONS 29), (anon_sym_raise, ACTIONS 31), (anon_sym_pass, ACTIONS 33),
    (anon_sym_break, ACTIONS 35), (anon_sym_continue, ACTIONS 37),
    (anon_sym___extension, ACTIONS 101), (anon_sym___mlir_region, ACTIONS 103),
    (anon_sym_if, ACTIONS 105), (anon_sym_match, ACTIONS 107), (anon_sym_async, ACTIONS 109),
    (anon_sym_for, ACTIONS 111), (anon_sym_while, ACTIONS 113), (anon_sym_try, ACTIONS 115),
    (anon_sym_with, ACTIONS 117), (anon_sym_def, ACTIONS 119), (anon_sym_fn, ACTIONS 119),
    (anon_sym_LBRACK, ACTIONS 59), (anon_sym_LBRACE, ACTIONS 61), (anon_sym_global, ACTIONS 63),
    (anon_sym_nonlocal, ACTIONS 65), (anon_sym_exec, ACTIONS 67), (anon_sym_type, ACTIONS 69),
    (anon_sym_class, ACTIONS 121), (anon_sym_struct, ACTIONS 121), (anon_sym_mut, ACTIONS 73),
    (anon_sym_out, ACTIONS 73), (anon_sym_trait, ACTIONS 123), (anon_sym_AT, ACTIONS 77),
    (anon_sym_DASH, ACTIONS 79), (anon_sym_PLUS, ACTIONS 79), (anon_sym_ref, ACTIONS 81),
    (anon_sym_var, ACTIONS 81), (anon_sym_not, ACTIONS 83), (anon_sym_TILDE, ACTIONS 79),
    (anon_sym_lambda, ACTIONS 85), (anon_sym_yield, ACTIONS 87), (sym_ellipsis, ACTIONS 89),
    (anon_sym___mlir_type, ACTIONS 91), (sym_integer, ACTIONS 93), (sym_float, ACTIONS 89),
    (anon_sym_await, ACTIONS 95), (sym_true, ACTIONS 93), (sym_false, ACTIONS 93),
    (sym_none, ACTIONS 93), (sym_comment, ACTIONS 3), (sym_line_continuation, ACTIONS 3),
    (sym__dedent, ACTIONS 125), (sym_string_start, ACTIONS 97)]"

definition parse_table_667 :: "(nat \<times> nat) list" where "parse_table_667 = [
    (sym__statement, STATE 927), (sym__simple_statements, STATE 927),
    (sym_import_statement, STATE 11814), (sym_future_import_statement, STATE 11814),
    (sym_import_from_statement, STATE 11814), (sym_print_statement, STATE 11814),
    (sym_assert_statement, STATE 11814), (sym_comptime_assert_statement, STATE 11814),
    (sym_expression_statement, STATE 11814), (sym_tuple_expression, STATE 12425),
    (sym_named_expression, STATE 7969), (sym__named_expression_lhs, STATE 12752),
    (sym_return_statement, STATE 11814), (sym_delete_statement, STATE 11814),
    (sym_raise_statement, STATE 11814), (sym_pass_statement, STATE 11814),
    (sym_break_statement, STATE 11814), (sym_continue_statement, STATE 11814),
    (sym_extension_definition, STATE 927), (sym_mlir_region, STATE 927),
    (sym_comptime_statement, STATE 927), (sym_if_statement, STATE 927),
    (sym_match_statement, STATE 927), (sym_for_statement, STATE 927),
    (sym_while_statement, STATE 927), (sym_try_statement, STATE 927),
    (sym_with_statement, STATE 927), (sym_function_definition, STATE 927),
    (sym_global_statement, STATE 11814), (sym_nonlocal_statement, STATE 11814),
    (sym_exec_statement, STATE 11814), (sym_type_alias_statement, STATE 11814),
    (sym_parameterized_alias_statement, STATE 11814), (sym_class_definition, STATE 927),
    (sym_trait_definition, STATE 927), (sym_decorated_definition, STATE 927),
    (sym_decorator, STATE 3670), (sym_block, STATE 5923), (sym_pattern, STATE 8086),
    (sym_tuple_pattern, STATE 8101), (sym_list_pattern, STATE 8101),
    (sym_list_splat_pattern, STATE 6819), (sym_as_pattern, STATE 7969),
    (sym_expression, STATE 9883), (sym_primary_expression, STATE 7326),
    (sym_comptime_expression, STATE 7017), (sym_transfer_expression, STATE 7017),
    (sym_not_operator, STATE 7969), (sym_boolean_operator, STATE 7969),
    (sym_binary_operator, STATE 7017), (sym_unary_operator, STATE 7017),
    (sym_comparison_operator, STATE 7969), (sym_lambda, STATE 7969),
    (sym_assignment, STATE 12425), (sym_augmented_assignment, STATE 12425),
    (sym_pattern_list, STATE 8578), (sym_yield, STATE 12425), (sym_attribute, STATE 6836),
    (sym_subscript, STATE 6838), (sym_call, STATE 6845), (sym_mlir_type, STATE 7017),
    (sym_list, STATE 7017), (sym_set, STATE 7017), (sym_tuple, STATE 7017),
    (sym_dictionary, STATE 7017), (sym_struct_literal, STATE 7017),
    (sym_list_comprehension, STATE 7017), (sym_dictionary_comprehension, STATE 7017),
    (sym_set_comprehension, STATE 7017), (sym_generator_expression, STATE 7017),
    (sym_parenthesized_expression, STATE 7017), (sym_conditional_expression, STATE 7969),
    (sym_concatenated_string, STATE 7017), (sym_string, STATE 6751), (sym_await, STATE 7017),
    (aux_sym_module_repeat1, STATE 927), (aux_sym_decorated_definition_repeat1, STATE 3670),
    (sym_identifier, ACTIONS 9), (anon_sym_import, ACTIONS 11), (anon_sym_from, ACTIONS 13),
    (anon_sym_LPAREN, ACTIONS 15), (anon_sym_STAR, ACTIONS 17), (anon_sym_print, ACTIONS 19),
    (anon_sym_comptime, ACTIONS 99), (anon_sym_assert, ACTIONS 23),
    (anon_sym___comptime_assert, ACTIONS 25), (anon_sym_return, ACTIONS 27),
    (anon_sym_del, ACTIONS 29), (anon_sym_raise, ACTIONS 31), (anon_sym_pass, ACTIONS 33),
    (anon_sym_break, ACTIONS 35), (anon_sym_continue, ACTIONS 37),
    (anon_sym___extension, ACTIONS 101), (anon_sym___mlir_region, ACTIONS 103),
    (anon_sym_if, ACTIONS 105), (anon_sym_match, ACTIONS 107), (anon_sym_async, ACTIONS 109),
    (anon_sym_for, ACTIONS 111), (anon_sym_while, ACTIONS 113), (anon_sym_try, ACTIONS 115),
    (anon_sym_with, ACTIONS 117), (anon_sym_def, ACTIONS 119), (anon_sym_fn, ACTIONS 119),
    (anon_sym_LBRACK, ACTIONS 59), (anon_sym_LBRACE, ACTIONS 61), (anon_sym_global, ACTIONS 63),
    (anon_sym_nonlocal, ACTIONS 65), (anon_sym_exec, ACTIONS 67), (anon_sym_type, ACTIONS 69),
    (anon_sym_class, ACTIONS 121), (anon_sym_struct, ACTIONS 121), (anon_sym_mut, ACTIONS 73),
    (anon_sym_out, ACTIONS 73), (anon_sym_trait, ACTIONS 123), (anon_sym_AT, ACTIONS 77),
    (anon_sym_DASH, ACTIONS 79), (anon_sym_PLUS, ACTIONS 79), (anon_sym_ref, ACTIONS 81),
    (anon_sym_var, ACTIONS 81), (anon_sym_not, ACTIONS 83), (anon_sym_TILDE, ACTIONS 79),
    (anon_sym_lambda, ACTIONS 85), (anon_sym_yield, ACTIONS 87), (sym_ellipsis, ACTIONS 89),
    (anon_sym___mlir_type, ACTIONS 91), (sym_integer, ACTIONS 93), (sym_float, ACTIONS 89),
    (anon_sym_await, ACTIONS 95), (sym_true, ACTIONS 93), (sym_false, ACTIONS 93),
    (sym_none, ACTIONS 93), (sym_comment, ACTIONS 3), (sym_line_continuation, ACTIONS 3),
    (sym__dedent, ACTIONS 125), (sym_string_start, ACTIONS 97)]"

definition parse_table_668 :: "(nat \<times> nat) list" where "parse_table_668 = [
    (sym__statement, STATE 927), (sym__simple_statements, STATE 927),
    (sym_import_statement, STATE 11814), (sym_future_import_statement, STATE 11814),
    (sym_import_from_statement, STATE 11814), (sym_print_statement, STATE 11814),
    (sym_assert_statement, STATE 11814), (sym_comptime_assert_statement, STATE 11814),
    (sym_expression_statement, STATE 11814), (sym_tuple_expression, STATE 12425),
    (sym_named_expression, STATE 7969), (sym__named_expression_lhs, STATE 12752),
    (sym_return_statement, STATE 11814), (sym_delete_statement, STATE 11814),
    (sym_raise_statement, STATE 11814), (sym_pass_statement, STATE 11814),
    (sym_break_statement, STATE 11814), (sym_continue_statement, STATE 11814),
    (sym_extension_definition, STATE 927), (sym_mlir_region, STATE 927),
    (sym_comptime_statement, STATE 927), (sym_if_statement, STATE 927),
    (sym_match_statement, STATE 927), (sym_for_statement, STATE 927),
    (sym_while_statement, STATE 927), (sym_try_statement, STATE 927),
    (sym_with_statement, STATE 927), (sym_function_definition, STATE 927),
    (sym_global_statement, STATE 11814), (sym_nonlocal_statement, STATE 11814),
    (sym_exec_statement, STATE 11814), (sym_type_alias_statement, STATE 11814),
    (sym_parameterized_alias_statement, STATE 11814), (sym_class_definition, STATE 927),
    (sym_trait_definition, STATE 927), (sym_decorated_definition, STATE 927),
    (sym_decorator, STATE 3670), (sym_block, STATE 5924), (sym_pattern, STATE 8086),
    (sym_tuple_pattern, STATE 8101), (sym_list_pattern, STATE 8101),
    (sym_list_splat_pattern, STATE 6819), (sym_as_pattern, STATE 7969),
    (sym_expression, STATE 9883), (sym_primary_expression, STATE 7326),
    (sym_comptime_expression, STATE 7017), (sym_transfer_expression, STATE 7017),
    (sym_not_operator, STATE 7969), (sym_boolean_operator, STATE 7969),
    (sym_binary_operator, STATE 7017), (sym_unary_operator, STATE 7017),
    (sym_comparison_operator, STATE 7969), (sym_lambda, STATE 7969),
    (sym_assignment, STATE 12425), (sym_augmented_assignment, STATE 12425),
    (sym_pattern_list, STATE 8578), (sym_yield, STATE 12425), (sym_attribute, STATE 6836),
    (sym_subscript, STATE 6838), (sym_call, STATE 6845), (sym_mlir_type, STATE 7017),
    (sym_list, STATE 7017), (sym_set, STATE 7017), (sym_tuple, STATE 7017),
    (sym_dictionary, STATE 7017), (sym_struct_literal, STATE 7017),
    (sym_list_comprehension, STATE 7017), (sym_dictionary_comprehension, STATE 7017),
    (sym_set_comprehension, STATE 7017), (sym_generator_expression, STATE 7017),
    (sym_parenthesized_expression, STATE 7017), (sym_conditional_expression, STATE 7969),
    (sym_concatenated_string, STATE 7017), (sym_string, STATE 6751), (sym_await, STATE 7017),
    (aux_sym_module_repeat1, STATE 927), (aux_sym_decorated_definition_repeat1, STATE 3670),
    (sym_identifier, ACTIONS 9), (anon_sym_import, ACTIONS 11), (anon_sym_from, ACTIONS 13),
    (anon_sym_LPAREN, ACTIONS 15), (anon_sym_STAR, ACTIONS 17), (anon_sym_print, ACTIONS 19),
    (anon_sym_comptime, ACTIONS 99), (anon_sym_assert, ACTIONS 23),
    (anon_sym___comptime_assert, ACTIONS 25), (anon_sym_return, ACTIONS 27),
    (anon_sym_del, ACTIONS 29), (anon_sym_raise, ACTIONS 31), (anon_sym_pass, ACTIONS 33),
    (anon_sym_break, ACTIONS 35), (anon_sym_continue, ACTIONS 37),
    (anon_sym___extension, ACTIONS 101), (anon_sym___mlir_region, ACTIONS 103),
    (anon_sym_if, ACTIONS 105), (anon_sym_match, ACTIONS 107), (anon_sym_async, ACTIONS 109),
    (anon_sym_for, ACTIONS 111), (anon_sym_while, ACTIONS 113), (anon_sym_try, ACTIONS 115),
    (anon_sym_with, ACTIONS 117), (anon_sym_def, ACTIONS 119), (anon_sym_fn, ACTIONS 119),
    (anon_sym_LBRACK, ACTIONS 59), (anon_sym_LBRACE, ACTIONS 61), (anon_sym_global, ACTIONS 63),
    (anon_sym_nonlocal, ACTIONS 65), (anon_sym_exec, ACTIONS 67), (anon_sym_type, ACTIONS 69),
    (anon_sym_class, ACTIONS 121), (anon_sym_struct, ACTIONS 121), (anon_sym_mut, ACTIONS 73),
    (anon_sym_out, ACTIONS 73), (anon_sym_trait, ACTIONS 123), (anon_sym_AT, ACTIONS 77),
    (anon_sym_DASH, ACTIONS 79), (anon_sym_PLUS, ACTIONS 79), (anon_sym_ref, ACTIONS 81),
    (anon_sym_var, ACTIONS 81), (anon_sym_not, ACTIONS 83), (anon_sym_TILDE, ACTIONS 79),
    (anon_sym_lambda, ACTIONS 85), (anon_sym_yield, ACTIONS 87), (sym_ellipsis, ACTIONS 89),
    (anon_sym___mlir_type, ACTIONS 91), (sym_integer, ACTIONS 93), (sym_float, ACTIONS 89),
    (anon_sym_await, ACTIONS 95), (sym_true, ACTIONS 93), (sym_false, ACTIONS 93),
    (sym_none, ACTIONS 93), (sym_comment, ACTIONS 3), (sym_line_continuation, ACTIONS 3),
    (sym__dedent, ACTIONS 125), (sym_string_start, ACTIONS 97)]"

definition parse_table_669 :: "(nat \<times> nat) list" where "parse_table_669 = [
    (sym__statement, STATE 927), (sym__simple_statements, STATE 927),
    (sym_import_statement, STATE 11814), (sym_future_import_statement, STATE 11814),
    (sym_import_from_statement, STATE 11814), (sym_print_statement, STATE 11814),
    (sym_assert_statement, STATE 11814), (sym_comptime_assert_statement, STATE 11814),
    (sym_expression_statement, STATE 11814), (sym_tuple_expression, STATE 12425),
    (sym_named_expression, STATE 7969), (sym__named_expression_lhs, STATE 12752),
    (sym_return_statement, STATE 11814), (sym_delete_statement, STATE 11814),
    (sym_raise_statement, STATE 11814), (sym_pass_statement, STATE 11814),
    (sym_break_statement, STATE 11814), (sym_continue_statement, STATE 11814),
    (sym_extension_definition, STATE 927), (sym_mlir_region, STATE 927),
    (sym_comptime_statement, STATE 927), (sym_if_statement, STATE 927),
    (sym_match_statement, STATE 927), (sym_for_statement, STATE 927),
    (sym_while_statement, STATE 927), (sym_try_statement, STATE 927),
    (sym_with_statement, STATE 927), (sym_function_definition, STATE 927),
    (sym_global_statement, STATE 11814), (sym_nonlocal_statement, STATE 11814),
    (sym_exec_statement, STATE 11814), (sym_type_alias_statement, STATE 11814),
    (sym_parameterized_alias_statement, STATE 11814), (sym_class_definition, STATE 927),
    (sym_trait_definition, STATE 927), (sym_decorated_definition, STATE 927),
    (sym_decorator, STATE 3670), (sym_block, STATE 5927), (sym_pattern, STATE 8086),
    (sym_tuple_pattern, STATE 8101), (sym_list_pattern, STATE 8101),
    (sym_list_splat_pattern, STATE 6819), (sym_as_pattern, STATE 7969),
    (sym_expression, STATE 9883), (sym_primary_expression, STATE 7326),
    (sym_comptime_expression, STATE 7017), (sym_transfer_expression, STATE 7017),
    (sym_not_operator, STATE 7969), (sym_boolean_operator, STATE 7969),
    (sym_binary_operator, STATE 7017), (sym_unary_operator, STATE 7017),
    (sym_comparison_operator, STATE 7969), (sym_lambda, STATE 7969),
    (sym_assignment, STATE 12425), (sym_augmented_assignment, STATE 12425),
    (sym_pattern_list, STATE 8578), (sym_yield, STATE 12425), (sym_attribute, STATE 6836),
    (sym_subscript, STATE 6838), (sym_call, STATE 6845), (sym_mlir_type, STATE 7017),
    (sym_list, STATE 7017), (sym_set, STATE 7017), (sym_tuple, STATE 7017),
    (sym_dictionary, STATE 7017), (sym_struct_literal, STATE 7017),
    (sym_list_comprehension, STATE 7017), (sym_dictionary_comprehension, STATE 7017),
    (sym_set_comprehension, STATE 7017), (sym_generator_expression, STATE 7017),
    (sym_parenthesized_expression, STATE 7017), (sym_conditional_expression, STATE 7969),
    (sym_concatenated_string, STATE 7017), (sym_string, STATE 6751), (sym_await, STATE 7017),
    (aux_sym_module_repeat1, STATE 927), (aux_sym_decorated_definition_repeat1, STATE 3670),
    (sym_identifier, ACTIONS 9), (anon_sym_import, ACTIONS 11), (anon_sym_from, ACTIONS 13),
    (anon_sym_LPAREN, ACTIONS 15), (anon_sym_STAR, ACTIONS 17), (anon_sym_print, ACTIONS 19),
    (anon_sym_comptime, ACTIONS 99), (anon_sym_assert, ACTIONS 23),
    (anon_sym___comptime_assert, ACTIONS 25), (anon_sym_return, ACTIONS 27),
    (anon_sym_del, ACTIONS 29), (anon_sym_raise, ACTIONS 31), (anon_sym_pass, ACTIONS 33),
    (anon_sym_break, ACTIONS 35), (anon_sym_continue, ACTIONS 37),
    (anon_sym___extension, ACTIONS 101), (anon_sym___mlir_region, ACTIONS 103),
    (anon_sym_if, ACTIONS 105), (anon_sym_match, ACTIONS 107), (anon_sym_async, ACTIONS 109),
    (anon_sym_for, ACTIONS 111), (anon_sym_while, ACTIONS 113), (anon_sym_try, ACTIONS 115),
    (anon_sym_with, ACTIONS 117), (anon_sym_def, ACTIONS 119), (anon_sym_fn, ACTIONS 119),
    (anon_sym_LBRACK, ACTIONS 59), (anon_sym_LBRACE, ACTIONS 61), (anon_sym_global, ACTIONS 63),
    (anon_sym_nonlocal, ACTIONS 65), (anon_sym_exec, ACTIONS 67), (anon_sym_type, ACTIONS 69),
    (anon_sym_class, ACTIONS 121), (anon_sym_struct, ACTIONS 121), (anon_sym_mut, ACTIONS 73),
    (anon_sym_out, ACTIONS 73), (anon_sym_trait, ACTIONS 123), (anon_sym_AT, ACTIONS 77),
    (anon_sym_DASH, ACTIONS 79), (anon_sym_PLUS, ACTIONS 79), (anon_sym_ref, ACTIONS 81),
    (anon_sym_var, ACTIONS 81), (anon_sym_not, ACTIONS 83), (anon_sym_TILDE, ACTIONS 79),
    (anon_sym_lambda, ACTIONS 85), (anon_sym_yield, ACTIONS 87), (sym_ellipsis, ACTIONS 89),
    (anon_sym___mlir_type, ACTIONS 91), (sym_integer, ACTIONS 93), (sym_float, ACTIONS 89),
    (anon_sym_await, ACTIONS 95), (sym_true, ACTIONS 93), (sym_false, ACTIONS 93),
    (sym_none, ACTIONS 93), (sym_comment, ACTIONS 3), (sym_line_continuation, ACTIONS 3),
    (sym__dedent, ACTIONS 125), (sym_string_start, ACTIONS 97)]"

definition parse_table_670 :: "(nat \<times> nat) list" where "parse_table_670 = [
    (sym__statement, STATE 927), (sym__simple_statements, STATE 927),
    (sym_import_statement, STATE 11814), (sym_future_import_statement, STATE 11814),
    (sym_import_from_statement, STATE 11814), (sym_print_statement, STATE 11814),
    (sym_assert_statement, STATE 11814), (sym_comptime_assert_statement, STATE 11814),
    (sym_expression_statement, STATE 11814), (sym_tuple_expression, STATE 12425),
    (sym_named_expression, STATE 7969), (sym__named_expression_lhs, STATE 12752),
    (sym_return_statement, STATE 11814), (sym_delete_statement, STATE 11814),
    (sym_raise_statement, STATE 11814), (sym_pass_statement, STATE 11814),
    (sym_break_statement, STATE 11814), (sym_continue_statement, STATE 11814),
    (sym_extension_definition, STATE 927), (sym_mlir_region, STATE 927),
    (sym_comptime_statement, STATE 927), (sym_if_statement, STATE 927),
    (sym_match_statement, STATE 927), (sym_for_statement, STATE 927),
    (sym_while_statement, STATE 927), (sym_try_statement, STATE 927),
    (sym_with_statement, STATE 927), (sym_function_definition, STATE 927),
    (sym_global_statement, STATE 11814), (sym_nonlocal_statement, STATE 11814),
    (sym_exec_statement, STATE 11814), (sym_type_alias_statement, STATE 11814),
    (sym_parameterized_alias_statement, STATE 11814), (sym_class_definition, STATE 927),
    (sym_trait_definition, STATE 927), (sym_decorated_definition, STATE 927),
    (sym_decorator, STATE 3670), (sym_block, STATE 5929), (sym_pattern, STATE 8086),
    (sym_tuple_pattern, STATE 8101), (sym_list_pattern, STATE 8101),
    (sym_list_splat_pattern, STATE 6819), (sym_as_pattern, STATE 7969),
    (sym_expression, STATE 9883), (sym_primary_expression, STATE 7326),
    (sym_comptime_expression, STATE 7017), (sym_transfer_expression, STATE 7017),
    (sym_not_operator, STATE 7969), (sym_boolean_operator, STATE 7969),
    (sym_binary_operator, STATE 7017), (sym_unary_operator, STATE 7017),
    (sym_comparison_operator, STATE 7969), (sym_lambda, STATE 7969),
    (sym_assignment, STATE 12425), (sym_augmented_assignment, STATE 12425),
    (sym_pattern_list, STATE 8578), (sym_yield, STATE 12425), (sym_attribute, STATE 6836),
    (sym_subscript, STATE 6838), (sym_call, STATE 6845), (sym_mlir_type, STATE 7017),
    (sym_list, STATE 7017), (sym_set, STATE 7017), (sym_tuple, STATE 7017),
    (sym_dictionary, STATE 7017), (sym_struct_literal, STATE 7017),
    (sym_list_comprehension, STATE 7017), (sym_dictionary_comprehension, STATE 7017),
    (sym_set_comprehension, STATE 7017), (sym_generator_expression, STATE 7017),
    (sym_parenthesized_expression, STATE 7017), (sym_conditional_expression, STATE 7969),
    (sym_concatenated_string, STATE 7017), (sym_string, STATE 6751), (sym_await, STATE 7017),
    (aux_sym_module_repeat1, STATE 927), (aux_sym_decorated_definition_repeat1, STATE 3670),
    (sym_identifier, ACTIONS 9), (anon_sym_import, ACTIONS 11), (anon_sym_from, ACTIONS 13),
    (anon_sym_LPAREN, ACTIONS 15), (anon_sym_STAR, ACTIONS 17), (anon_sym_print, ACTIONS 19),
    (anon_sym_comptime, ACTIONS 99), (anon_sym_assert, ACTIONS 23),
    (anon_sym___comptime_assert, ACTIONS 25), (anon_sym_return, ACTIONS 27),
    (anon_sym_del, ACTIONS 29), (anon_sym_raise, ACTIONS 31), (anon_sym_pass, ACTIONS 33),
    (anon_sym_break, ACTIONS 35), (anon_sym_continue, ACTIONS 37),
    (anon_sym___extension, ACTIONS 101), (anon_sym___mlir_region, ACTIONS 103),
    (anon_sym_if, ACTIONS 105), (anon_sym_match, ACTIONS 107), (anon_sym_async, ACTIONS 109),
    (anon_sym_for, ACTIONS 111), (anon_sym_while, ACTIONS 113), (anon_sym_try, ACTIONS 115),
    (anon_sym_with, ACTIONS 117), (anon_sym_def, ACTIONS 119), (anon_sym_fn, ACTIONS 119),
    (anon_sym_LBRACK, ACTIONS 59), (anon_sym_LBRACE, ACTIONS 61), (anon_sym_global, ACTIONS 63),
    (anon_sym_nonlocal, ACTIONS 65), (anon_sym_exec, ACTIONS 67), (anon_sym_type, ACTIONS 69),
    (anon_sym_class, ACTIONS 121), (anon_sym_struct, ACTIONS 121), (anon_sym_mut, ACTIONS 73),
    (anon_sym_out, ACTIONS 73), (anon_sym_trait, ACTIONS 123), (anon_sym_AT, ACTIONS 77),
    (anon_sym_DASH, ACTIONS 79), (anon_sym_PLUS, ACTIONS 79), (anon_sym_ref, ACTIONS 81),
    (anon_sym_var, ACTIONS 81), (anon_sym_not, ACTIONS 83), (anon_sym_TILDE, ACTIONS 79),
    (anon_sym_lambda, ACTIONS 85), (anon_sym_yield, ACTIONS 87), (sym_ellipsis, ACTIONS 89),
    (anon_sym___mlir_type, ACTIONS 91), (sym_integer, ACTIONS 93), (sym_float, ACTIONS 89),
    (anon_sym_await, ACTIONS 95), (sym_true, ACTIONS 93), (sym_false, ACTIONS 93),
    (sym_none, ACTIONS 93), (sym_comment, ACTIONS 3), (sym_line_continuation, ACTIONS 3),
    (sym__dedent, ACTIONS 125), (sym_string_start, ACTIONS 97)]"

definition parse_table_671 :: "(nat \<times> nat) list" where "parse_table_671 = [
    (sym__statement, STATE 927), (sym__simple_statements, STATE 927),
    (sym_import_statement, STATE 11814), (sym_future_import_statement, STATE 11814),
    (sym_import_from_statement, STATE 11814), (sym_print_statement, STATE 11814),
    (sym_assert_statement, STATE 11814), (sym_comptime_assert_statement, STATE 11814),
    (sym_expression_statement, STATE 11814), (sym_tuple_expression, STATE 12425),
    (sym_named_expression, STATE 7969), (sym__named_expression_lhs, STATE 12752),
    (sym_return_statement, STATE 11814), (sym_delete_statement, STATE 11814),
    (sym_raise_statement, STATE 11814), (sym_pass_statement, STATE 11814),
    (sym_break_statement, STATE 11814), (sym_continue_statement, STATE 11814),
    (sym_extension_definition, STATE 927), (sym_mlir_region, STATE 927),
    (sym_comptime_statement, STATE 927), (sym_if_statement, STATE 927),
    (sym_match_statement, STATE 927), (sym_for_statement, STATE 927),
    (sym_while_statement, STATE 927), (sym_try_statement, STATE 927),
    (sym_with_statement, STATE 927), (sym_function_definition, STATE 927),
    (sym_global_statement, STATE 11814), (sym_nonlocal_statement, STATE 11814),
    (sym_exec_statement, STATE 11814), (sym_type_alias_statement, STATE 11814),
    (sym_parameterized_alias_statement, STATE 11814), (sym_class_definition, STATE 927),
    (sym_trait_definition, STATE 927), (sym_decorated_definition, STATE 927),
    (sym_decorator, STATE 3670), (sym_block, STATE 5931), (sym_pattern, STATE 8086),
    (sym_tuple_pattern, STATE 8101), (sym_list_pattern, STATE 8101),
    (sym_list_splat_pattern, STATE 6819), (sym_as_pattern, STATE 7969),
    (sym_expression, STATE 9883), (sym_primary_expression, STATE 7326),
    (sym_comptime_expression, STATE 7017), (sym_transfer_expression, STATE 7017),
    (sym_not_operator, STATE 7969), (sym_boolean_operator, STATE 7969),
    (sym_binary_operator, STATE 7017), (sym_unary_operator, STATE 7017),
    (sym_comparison_operator, STATE 7969), (sym_lambda, STATE 7969),
    (sym_assignment, STATE 12425), (sym_augmented_assignment, STATE 12425),
    (sym_pattern_list, STATE 8578), (sym_yield, STATE 12425), (sym_attribute, STATE 6836),
    (sym_subscript, STATE 6838), (sym_call, STATE 6845), (sym_mlir_type, STATE 7017),
    (sym_list, STATE 7017), (sym_set, STATE 7017), (sym_tuple, STATE 7017),
    (sym_dictionary, STATE 7017), (sym_struct_literal, STATE 7017),
    (sym_list_comprehension, STATE 7017), (sym_dictionary_comprehension, STATE 7017),
    (sym_set_comprehension, STATE 7017), (sym_generator_expression, STATE 7017),
    (sym_parenthesized_expression, STATE 7017), (sym_conditional_expression, STATE 7969),
    (sym_concatenated_string, STATE 7017), (sym_string, STATE 6751), (sym_await, STATE 7017),
    (aux_sym_module_repeat1, STATE 927), (aux_sym_decorated_definition_repeat1, STATE 3670),
    (sym_identifier, ACTIONS 9), (anon_sym_import, ACTIONS 11), (anon_sym_from, ACTIONS 13),
    (anon_sym_LPAREN, ACTIONS 15), (anon_sym_STAR, ACTIONS 17), (anon_sym_print, ACTIONS 19),
    (anon_sym_comptime, ACTIONS 99), (anon_sym_assert, ACTIONS 23),
    (anon_sym___comptime_assert, ACTIONS 25), (anon_sym_return, ACTIONS 27),
    (anon_sym_del, ACTIONS 29), (anon_sym_raise, ACTIONS 31), (anon_sym_pass, ACTIONS 33),
    (anon_sym_break, ACTIONS 35), (anon_sym_continue, ACTIONS 37),
    (anon_sym___extension, ACTIONS 101), (anon_sym___mlir_region, ACTIONS 103),
    (anon_sym_if, ACTIONS 105), (anon_sym_match, ACTIONS 107), (anon_sym_async, ACTIONS 109),
    (anon_sym_for, ACTIONS 111), (anon_sym_while, ACTIONS 113), (anon_sym_try, ACTIONS 115),
    (anon_sym_with, ACTIONS 117), (anon_sym_def, ACTIONS 119), (anon_sym_fn, ACTIONS 119),
    (anon_sym_LBRACK, ACTIONS 59), (anon_sym_LBRACE, ACTIONS 61), (anon_sym_global, ACTIONS 63),
    (anon_sym_nonlocal, ACTIONS 65), (anon_sym_exec, ACTIONS 67), (anon_sym_type, ACTIONS 69),
    (anon_sym_class, ACTIONS 121), (anon_sym_struct, ACTIONS 121), (anon_sym_mut, ACTIONS 73),
    (anon_sym_out, ACTIONS 73), (anon_sym_trait, ACTIONS 123), (anon_sym_AT, ACTIONS 77),
    (anon_sym_DASH, ACTIONS 79), (anon_sym_PLUS, ACTIONS 79), (anon_sym_ref, ACTIONS 81),
    (anon_sym_var, ACTIONS 81), (anon_sym_not, ACTIONS 83), (anon_sym_TILDE, ACTIONS 79),
    (anon_sym_lambda, ACTIONS 85), (anon_sym_yield, ACTIONS 87), (sym_ellipsis, ACTIONS 89),
    (anon_sym___mlir_type, ACTIONS 91), (sym_integer, ACTIONS 93), (sym_float, ACTIONS 89),
    (anon_sym_await, ACTIONS 95), (sym_true, ACTIONS 93), (sym_false, ACTIONS 93),
    (sym_none, ACTIONS 93), (sym_comment, ACTIONS 3), (sym_line_continuation, ACTIONS 3),
    (sym__dedent, ACTIONS 125), (sym_string_start, ACTIONS 97)]"

definition parse_table_672 :: "(nat \<times> nat) list" where "parse_table_672 = [
    (sym__statement, STATE 927), (sym__simple_statements, STATE 927),
    (sym_import_statement, STATE 11814), (sym_future_import_statement, STATE 11814),
    (sym_import_from_statement, STATE 11814), (sym_print_statement, STATE 11814),
    (sym_assert_statement, STATE 11814), (sym_comptime_assert_statement, STATE 11814),
    (sym_expression_statement, STATE 11814), (sym_tuple_expression, STATE 12425),
    (sym_named_expression, STATE 7969), (sym__named_expression_lhs, STATE 12752),
    (sym_return_statement, STATE 11814), (sym_delete_statement, STATE 11814),
    (sym_raise_statement, STATE 11814), (sym_pass_statement, STATE 11814),
    (sym_break_statement, STATE 11814), (sym_continue_statement, STATE 11814),
    (sym_extension_definition, STATE 927), (sym_mlir_region, STATE 927),
    (sym_comptime_statement, STATE 927), (sym_if_statement, STATE 927),
    (sym_match_statement, STATE 927), (sym_for_statement, STATE 927),
    (sym_while_statement, STATE 927), (sym_try_statement, STATE 927),
    (sym_with_statement, STATE 927), (sym_function_definition, STATE 927),
    (sym_global_statement, STATE 11814), (sym_nonlocal_statement, STATE 11814),
    (sym_exec_statement, STATE 11814), (sym_type_alias_statement, STATE 11814),
    (sym_parameterized_alias_statement, STATE 11814), (sym_class_definition, STATE 927),
    (sym_trait_definition, STATE 927), (sym_decorated_definition, STATE 927),
    (sym_decorator, STATE 3670), (sym_block, STATE 5935), (sym_pattern, STATE 8086),
    (sym_tuple_pattern, STATE 8101), (sym_list_pattern, STATE 8101),
    (sym_list_splat_pattern, STATE 6819), (sym_as_pattern, STATE 7969),
    (sym_expression, STATE 9883), (sym_primary_expression, STATE 7326),
    (sym_comptime_expression, STATE 7017), (sym_transfer_expression, STATE 7017),
    (sym_not_operator, STATE 7969), (sym_boolean_operator, STATE 7969),
    (sym_binary_operator, STATE 7017), (sym_unary_operator, STATE 7017),
    (sym_comparison_operator, STATE 7969), (sym_lambda, STATE 7969),
    (sym_assignment, STATE 12425), (sym_augmented_assignment, STATE 12425),
    (sym_pattern_list, STATE 8578), (sym_yield, STATE 12425), (sym_attribute, STATE 6836),
    (sym_subscript, STATE 6838), (sym_call, STATE 6845), (sym_mlir_type, STATE 7017),
    (sym_list, STATE 7017), (sym_set, STATE 7017), (sym_tuple, STATE 7017),
    (sym_dictionary, STATE 7017), (sym_struct_literal, STATE 7017),
    (sym_list_comprehension, STATE 7017), (sym_dictionary_comprehension, STATE 7017),
    (sym_set_comprehension, STATE 7017), (sym_generator_expression, STATE 7017),
    (sym_parenthesized_expression, STATE 7017), (sym_conditional_expression, STATE 7969),
    (sym_concatenated_string, STATE 7017), (sym_string, STATE 6751), (sym_await, STATE 7017),
    (aux_sym_module_repeat1, STATE 927), (aux_sym_decorated_definition_repeat1, STATE 3670),
    (sym_identifier, ACTIONS 9), (anon_sym_import, ACTIONS 11), (anon_sym_from, ACTIONS 13),
    (anon_sym_LPAREN, ACTIONS 15), (anon_sym_STAR, ACTIONS 17), (anon_sym_print, ACTIONS 19),
    (anon_sym_comptime, ACTIONS 99), (anon_sym_assert, ACTIONS 23),
    (anon_sym___comptime_assert, ACTIONS 25), (anon_sym_return, ACTIONS 27),
    (anon_sym_del, ACTIONS 29), (anon_sym_raise, ACTIONS 31), (anon_sym_pass, ACTIONS 33),
    (anon_sym_break, ACTIONS 35), (anon_sym_continue, ACTIONS 37),
    (anon_sym___extension, ACTIONS 101), (anon_sym___mlir_region, ACTIONS 103),
    (anon_sym_if, ACTIONS 105), (anon_sym_match, ACTIONS 107), (anon_sym_async, ACTIONS 109),
    (anon_sym_for, ACTIONS 111), (anon_sym_while, ACTIONS 113), (anon_sym_try, ACTIONS 115),
    (anon_sym_with, ACTIONS 117), (anon_sym_def, ACTIONS 119), (anon_sym_fn, ACTIONS 119),
    (anon_sym_LBRACK, ACTIONS 59), (anon_sym_LBRACE, ACTIONS 61), (anon_sym_global, ACTIONS 63),
    (anon_sym_nonlocal, ACTIONS 65), (anon_sym_exec, ACTIONS 67), (anon_sym_type, ACTIONS 69),
    (anon_sym_class, ACTIONS 121), (anon_sym_struct, ACTIONS 121), (anon_sym_mut, ACTIONS 73),
    (anon_sym_out, ACTIONS 73), (anon_sym_trait, ACTIONS 123), (anon_sym_AT, ACTIONS 77),
    (anon_sym_DASH, ACTIONS 79), (anon_sym_PLUS, ACTIONS 79), (anon_sym_ref, ACTIONS 81),
    (anon_sym_var, ACTIONS 81), (anon_sym_not, ACTIONS 83), (anon_sym_TILDE, ACTIONS 79),
    (anon_sym_lambda, ACTIONS 85), (anon_sym_yield, ACTIONS 87), (sym_ellipsis, ACTIONS 89),
    (anon_sym___mlir_type, ACTIONS 91), (sym_integer, ACTIONS 93), (sym_float, ACTIONS 89),
    (anon_sym_await, ACTIONS 95), (sym_true, ACTIONS 93), (sym_false, ACTIONS 93),
    (sym_none, ACTIONS 93), (sym_comment, ACTIONS 3), (sym_line_continuation, ACTIONS 3),
    (sym__dedent, ACTIONS 125), (sym_string_start, ACTIONS 97)]"

definition parse_table_673 :: "(nat \<times> nat) list" where "parse_table_673 = [
    (sym__statement, STATE 927), (sym__simple_statements, STATE 927),
    (sym_import_statement, STATE 11814), (sym_future_import_statement, STATE 11814),
    (sym_import_from_statement, STATE 11814), (sym_print_statement, STATE 11814),
    (sym_assert_statement, STATE 11814), (sym_comptime_assert_statement, STATE 11814),
    (sym_expression_statement, STATE 11814), (sym_tuple_expression, STATE 12425),
    (sym_named_expression, STATE 7969), (sym__named_expression_lhs, STATE 12752),
    (sym_return_statement, STATE 11814), (sym_delete_statement, STATE 11814),
    (sym_raise_statement, STATE 11814), (sym_pass_statement, STATE 11814),
    (sym_break_statement, STATE 11814), (sym_continue_statement, STATE 11814),
    (sym_extension_definition, STATE 927), (sym_mlir_region, STATE 927),
    (sym_comptime_statement, STATE 927), (sym_if_statement, STATE 927),
    (sym_match_statement, STATE 927), (sym_for_statement, STATE 927),
    (sym_while_statement, STATE 927), (sym_try_statement, STATE 927),
    (sym_with_statement, STATE 927), (sym_function_definition, STATE 927),
    (sym_global_statement, STATE 11814), (sym_nonlocal_statement, STATE 11814),
    (sym_exec_statement, STATE 11814), (sym_type_alias_statement, STATE 11814),
    (sym_parameterized_alias_statement, STATE 11814), (sym_class_definition, STATE 927),
    (sym_trait_definition, STATE 927), (sym_decorated_definition, STATE 927),
    (sym_decorator, STATE 3670), (sym_block, STATE 5938), (sym_pattern, STATE 8086),
    (sym_tuple_pattern, STATE 8101), (sym_list_pattern, STATE 8101),
    (sym_list_splat_pattern, STATE 6819), (sym_as_pattern, STATE 7969),
    (sym_expression, STATE 9883), (sym_primary_expression, STATE 7326),
    (sym_comptime_expression, STATE 7017), (sym_transfer_expression, STATE 7017),
    (sym_not_operator, STATE 7969), (sym_boolean_operator, STATE 7969),
    (sym_binary_operator, STATE 7017), (sym_unary_operator, STATE 7017),
    (sym_comparison_operator, STATE 7969), (sym_lambda, STATE 7969),
    (sym_assignment, STATE 12425), (sym_augmented_assignment, STATE 12425),
    (sym_pattern_list, STATE 8578), (sym_yield, STATE 12425), (sym_attribute, STATE 6836),
    (sym_subscript, STATE 6838), (sym_call, STATE 6845), (sym_mlir_type, STATE 7017),
    (sym_list, STATE 7017), (sym_set, STATE 7017), (sym_tuple, STATE 7017),
    (sym_dictionary, STATE 7017), (sym_struct_literal, STATE 7017),
    (sym_list_comprehension, STATE 7017), (sym_dictionary_comprehension, STATE 7017),
    (sym_set_comprehension, STATE 7017), (sym_generator_expression, STATE 7017),
    (sym_parenthesized_expression, STATE 7017), (sym_conditional_expression, STATE 7969),
    (sym_concatenated_string, STATE 7017), (sym_string, STATE 6751), (sym_await, STATE 7017),
    (aux_sym_module_repeat1, STATE 927), (aux_sym_decorated_definition_repeat1, STATE 3670),
    (sym_identifier, ACTIONS 9), (anon_sym_import, ACTIONS 11), (anon_sym_from, ACTIONS 13),
    (anon_sym_LPAREN, ACTIONS 15), (anon_sym_STAR, ACTIONS 17), (anon_sym_print, ACTIONS 19),
    (anon_sym_comptime, ACTIONS 99), (anon_sym_assert, ACTIONS 23),
    (anon_sym___comptime_assert, ACTIONS 25), (anon_sym_return, ACTIONS 27),
    (anon_sym_del, ACTIONS 29), (anon_sym_raise, ACTIONS 31), (anon_sym_pass, ACTIONS 33),
    (anon_sym_break, ACTIONS 35), (anon_sym_continue, ACTIONS 37),
    (anon_sym___extension, ACTIONS 101), (anon_sym___mlir_region, ACTIONS 103),
    (anon_sym_if, ACTIONS 105), (anon_sym_match, ACTIONS 107), (anon_sym_async, ACTIONS 109),
    (anon_sym_for, ACTIONS 111), (anon_sym_while, ACTIONS 113), (anon_sym_try, ACTIONS 115),
    (anon_sym_with, ACTIONS 117), (anon_sym_def, ACTIONS 119), (anon_sym_fn, ACTIONS 119),
    (anon_sym_LBRACK, ACTIONS 59), (anon_sym_LBRACE, ACTIONS 61), (anon_sym_global, ACTIONS 63),
    (anon_sym_nonlocal, ACTIONS 65), (anon_sym_exec, ACTIONS 67), (anon_sym_type, ACTIONS 69),
    (anon_sym_class, ACTIONS 121), (anon_sym_struct, ACTIONS 121), (anon_sym_mut, ACTIONS 73),
    (anon_sym_out, ACTIONS 73), (anon_sym_trait, ACTIONS 123), (anon_sym_AT, ACTIONS 77),
    (anon_sym_DASH, ACTIONS 79), (anon_sym_PLUS, ACTIONS 79), (anon_sym_ref, ACTIONS 81),
    (anon_sym_var, ACTIONS 81), (anon_sym_not, ACTIONS 83), (anon_sym_TILDE, ACTIONS 79),
    (anon_sym_lambda, ACTIONS 85), (anon_sym_yield, ACTIONS 87), (sym_ellipsis, ACTIONS 89),
    (anon_sym___mlir_type, ACTIONS 91), (sym_integer, ACTIONS 93), (sym_float, ACTIONS 89),
    (anon_sym_await, ACTIONS 95), (sym_true, ACTIONS 93), (sym_false, ACTIONS 93),
    (sym_none, ACTIONS 93), (sym_comment, ACTIONS 3), (sym_line_continuation, ACTIONS 3),
    (sym__dedent, ACTIONS 125), (sym_string_start, ACTIONS 97)]"

definition parse_table_674 :: "(nat \<times> nat) list" where "parse_table_674 = [
    (sym__statement, STATE 927), (sym__simple_statements, STATE 927),
    (sym_import_statement, STATE 11814), (sym_future_import_statement, STATE 11814),
    (sym_import_from_statement, STATE 11814), (sym_print_statement, STATE 11814),
    (sym_assert_statement, STATE 11814), (sym_comptime_assert_statement, STATE 11814),
    (sym_expression_statement, STATE 11814), (sym_tuple_expression, STATE 12425),
    (sym_named_expression, STATE 7969), (sym__named_expression_lhs, STATE 12752),
    (sym_return_statement, STATE 11814), (sym_delete_statement, STATE 11814),
    (sym_raise_statement, STATE 11814), (sym_pass_statement, STATE 11814),
    (sym_break_statement, STATE 11814), (sym_continue_statement, STATE 11814),
    (sym_extension_definition, STATE 927), (sym_mlir_region, STATE 927),
    (sym_comptime_statement, STATE 927), (sym_if_statement, STATE 927),
    (sym_match_statement, STATE 927), (sym_for_statement, STATE 927),
    (sym_while_statement, STATE 927), (sym_try_statement, STATE 927),
    (sym_with_statement, STATE 927), (sym_function_definition, STATE 927),
    (sym_global_statement, STATE 11814), (sym_nonlocal_statement, STATE 11814),
    (sym_exec_statement, STATE 11814), (sym_type_alias_statement, STATE 11814),
    (sym_parameterized_alias_statement, STATE 11814), (sym_class_definition, STATE 927),
    (sym_trait_definition, STATE 927), (sym_decorated_definition, STATE 927),
    (sym_decorator, STATE 3670), (sym_block, STATE 5940), (sym_pattern, STATE 8086),
    (sym_tuple_pattern, STATE 8101), (sym_list_pattern, STATE 8101),
    (sym_list_splat_pattern, STATE 6819), (sym_as_pattern, STATE 7969),
    (sym_expression, STATE 9883), (sym_primary_expression, STATE 7326),
    (sym_comptime_expression, STATE 7017), (sym_transfer_expression, STATE 7017),
    (sym_not_operator, STATE 7969), (sym_boolean_operator, STATE 7969),
    (sym_binary_operator, STATE 7017), (sym_unary_operator, STATE 7017),
    (sym_comparison_operator, STATE 7969), (sym_lambda, STATE 7969),
    (sym_assignment, STATE 12425), (sym_augmented_assignment, STATE 12425),
    (sym_pattern_list, STATE 8578), (sym_yield, STATE 12425), (sym_attribute, STATE 6836),
    (sym_subscript, STATE 6838), (sym_call, STATE 6845), (sym_mlir_type, STATE 7017),
    (sym_list, STATE 7017), (sym_set, STATE 7017), (sym_tuple, STATE 7017),
    (sym_dictionary, STATE 7017), (sym_struct_literal, STATE 7017),
    (sym_list_comprehension, STATE 7017), (sym_dictionary_comprehension, STATE 7017),
    (sym_set_comprehension, STATE 7017), (sym_generator_expression, STATE 7017),
    (sym_parenthesized_expression, STATE 7017), (sym_conditional_expression, STATE 7969),
    (sym_concatenated_string, STATE 7017), (sym_string, STATE 6751), (sym_await, STATE 7017),
    (aux_sym_module_repeat1, STATE 927), (aux_sym_decorated_definition_repeat1, STATE 3670),
    (sym_identifier, ACTIONS 9), (anon_sym_import, ACTIONS 11), (anon_sym_from, ACTIONS 13),
    (anon_sym_LPAREN, ACTIONS 15), (anon_sym_STAR, ACTIONS 17), (anon_sym_print, ACTIONS 19),
    (anon_sym_comptime, ACTIONS 99), (anon_sym_assert, ACTIONS 23),
    (anon_sym___comptime_assert, ACTIONS 25), (anon_sym_return, ACTIONS 27),
    (anon_sym_del, ACTIONS 29), (anon_sym_raise, ACTIONS 31), (anon_sym_pass, ACTIONS 33),
    (anon_sym_break, ACTIONS 35), (anon_sym_continue, ACTIONS 37),
    (anon_sym___extension, ACTIONS 101), (anon_sym___mlir_region, ACTIONS 103),
    (anon_sym_if, ACTIONS 105), (anon_sym_match, ACTIONS 107), (anon_sym_async, ACTIONS 109),
    (anon_sym_for, ACTIONS 111), (anon_sym_while, ACTIONS 113), (anon_sym_try, ACTIONS 115),
    (anon_sym_with, ACTIONS 117), (anon_sym_def, ACTIONS 119), (anon_sym_fn, ACTIONS 119),
    (anon_sym_LBRACK, ACTIONS 59), (anon_sym_LBRACE, ACTIONS 61), (anon_sym_global, ACTIONS 63),
    (anon_sym_nonlocal, ACTIONS 65), (anon_sym_exec, ACTIONS 67), (anon_sym_type, ACTIONS 69),
    (anon_sym_class, ACTIONS 121), (anon_sym_struct, ACTIONS 121), (anon_sym_mut, ACTIONS 73),
    (anon_sym_out, ACTIONS 73), (anon_sym_trait, ACTIONS 123), (anon_sym_AT, ACTIONS 77),
    (anon_sym_DASH, ACTIONS 79), (anon_sym_PLUS, ACTIONS 79), (anon_sym_ref, ACTIONS 81),
    (anon_sym_var, ACTIONS 81), (anon_sym_not, ACTIONS 83), (anon_sym_TILDE, ACTIONS 79),
    (anon_sym_lambda, ACTIONS 85), (anon_sym_yield, ACTIONS 87), (sym_ellipsis, ACTIONS 89),
    (anon_sym___mlir_type, ACTIONS 91), (sym_integer, ACTIONS 93), (sym_float, ACTIONS 89),
    (anon_sym_await, ACTIONS 95), (sym_true, ACTIONS 93), (sym_false, ACTIONS 93),
    (sym_none, ACTIONS 93), (sym_comment, ACTIONS 3), (sym_line_continuation, ACTIONS 3),
    (sym__dedent, ACTIONS 125), (sym_string_start, ACTIONS 97)]"

definition parse_table_675 :: "(nat \<times> nat) list" where "parse_table_675 = [
    (sym__statement, STATE 927), (sym__simple_statements, STATE 927),
    (sym_import_statement, STATE 11814), (sym_future_import_statement, STATE 11814),
    (sym_import_from_statement, STATE 11814), (sym_print_statement, STATE 11814),
    (sym_assert_statement, STATE 11814), (sym_comptime_assert_statement, STATE 11814),
    (sym_expression_statement, STATE 11814), (sym_tuple_expression, STATE 12425),
    (sym_named_expression, STATE 7969), (sym__named_expression_lhs, STATE 12752),
    (sym_return_statement, STATE 11814), (sym_delete_statement, STATE 11814),
    (sym_raise_statement, STATE 11814), (sym_pass_statement, STATE 11814),
    (sym_break_statement, STATE 11814), (sym_continue_statement, STATE 11814),
    (sym_extension_definition, STATE 927), (sym_mlir_region, STATE 927),
    (sym_comptime_statement, STATE 927), (sym_if_statement, STATE 927),
    (sym_match_statement, STATE 927), (sym_for_statement, STATE 927),
    (sym_while_statement, STATE 927), (sym_try_statement, STATE 927),
    (sym_with_statement, STATE 927), (sym_function_definition, STATE 927),
    (sym_global_statement, STATE 11814), (sym_nonlocal_statement, STATE 11814),
    (sym_exec_statement, STATE 11814), (sym_type_alias_statement, STATE 11814),
    (sym_parameterized_alias_statement, STATE 11814), (sym_class_definition, STATE 927),
    (sym_trait_definition, STATE 927), (sym_decorated_definition, STATE 927),
    (sym_decorator, STATE 3670), (sym_block, STATE 5952), (sym_pattern, STATE 8086),
    (sym_tuple_pattern, STATE 8101), (sym_list_pattern, STATE 8101),
    (sym_list_splat_pattern, STATE 6819), (sym_as_pattern, STATE 7969),
    (sym_expression, STATE 9883), (sym_primary_expression, STATE 7326),
    (sym_comptime_expression, STATE 7017), (sym_transfer_expression, STATE 7017),
    (sym_not_operator, STATE 7969), (sym_boolean_operator, STATE 7969),
    (sym_binary_operator, STATE 7017), (sym_unary_operator, STATE 7017),
    (sym_comparison_operator, STATE 7969), (sym_lambda, STATE 7969),
    (sym_assignment, STATE 12425), (sym_augmented_assignment, STATE 12425),
    (sym_pattern_list, STATE 8578), (sym_yield, STATE 12425), (sym_attribute, STATE 6836),
    (sym_subscript, STATE 6838), (sym_call, STATE 6845), (sym_mlir_type, STATE 7017),
    (sym_list, STATE 7017), (sym_set, STATE 7017), (sym_tuple, STATE 7017),
    (sym_dictionary, STATE 7017), (sym_struct_literal, STATE 7017),
    (sym_list_comprehension, STATE 7017), (sym_dictionary_comprehension, STATE 7017),
    (sym_set_comprehension, STATE 7017), (sym_generator_expression, STATE 7017),
    (sym_parenthesized_expression, STATE 7017), (sym_conditional_expression, STATE 7969),
    (sym_concatenated_string, STATE 7017), (sym_string, STATE 6751), (sym_await, STATE 7017),
    (aux_sym_module_repeat1, STATE 927), (aux_sym_decorated_definition_repeat1, STATE 3670),
    (sym_identifier, ACTIONS 9), (anon_sym_import, ACTIONS 11), (anon_sym_from, ACTIONS 13),
    (anon_sym_LPAREN, ACTIONS 15), (anon_sym_STAR, ACTIONS 17), (anon_sym_print, ACTIONS 19),
    (anon_sym_comptime, ACTIONS 99), (anon_sym_assert, ACTIONS 23),
    (anon_sym___comptime_assert, ACTIONS 25), (anon_sym_return, ACTIONS 27),
    (anon_sym_del, ACTIONS 29), (anon_sym_raise, ACTIONS 31), (anon_sym_pass, ACTIONS 33),
    (anon_sym_break, ACTIONS 35), (anon_sym_continue, ACTIONS 37),
    (anon_sym___extension, ACTIONS 101), (anon_sym___mlir_region, ACTIONS 103),
    (anon_sym_if, ACTIONS 105), (anon_sym_match, ACTIONS 107), (anon_sym_async, ACTIONS 109),
    (anon_sym_for, ACTIONS 111), (anon_sym_while, ACTIONS 113), (anon_sym_try, ACTIONS 115),
    (anon_sym_with, ACTIONS 117), (anon_sym_def, ACTIONS 119), (anon_sym_fn, ACTIONS 119),
    (anon_sym_LBRACK, ACTIONS 59), (anon_sym_LBRACE, ACTIONS 61), (anon_sym_global, ACTIONS 63),
    (anon_sym_nonlocal, ACTIONS 65), (anon_sym_exec, ACTIONS 67), (anon_sym_type, ACTIONS 69),
    (anon_sym_class, ACTIONS 121), (anon_sym_struct, ACTIONS 121), (anon_sym_mut, ACTIONS 73),
    (anon_sym_out, ACTIONS 73), (anon_sym_trait, ACTIONS 123), (anon_sym_AT, ACTIONS 77),
    (anon_sym_DASH, ACTIONS 79), (anon_sym_PLUS, ACTIONS 79), (anon_sym_ref, ACTIONS 81),
    (anon_sym_var, ACTIONS 81), (anon_sym_not, ACTIONS 83), (anon_sym_TILDE, ACTIONS 79),
    (anon_sym_lambda, ACTIONS 85), (anon_sym_yield, ACTIONS 87), (sym_ellipsis, ACTIONS 89),
    (anon_sym___mlir_type, ACTIONS 91), (sym_integer, ACTIONS 93), (sym_float, ACTIONS 89),
    (anon_sym_await, ACTIONS 95), (sym_true, ACTIONS 93), (sym_false, ACTIONS 93),
    (sym_none, ACTIONS 93), (sym_comment, ACTIONS 3), (sym_line_continuation, ACTIONS 3),
    (sym__dedent, ACTIONS 125), (sym_string_start, ACTIONS 97)]"

definition parse_table_676 :: "(nat \<times> nat) list" where "parse_table_676 = [
    (sym__statement, STATE 927), (sym__simple_statements, STATE 927),
    (sym_import_statement, STATE 11814), (sym_future_import_statement, STATE 11814),
    (sym_import_from_statement, STATE 11814), (sym_print_statement, STATE 11814),
    (sym_assert_statement, STATE 11814), (sym_comptime_assert_statement, STATE 11814),
    (sym_expression_statement, STATE 11814), (sym_tuple_expression, STATE 12425),
    (sym_named_expression, STATE 7969), (sym__named_expression_lhs, STATE 12752),
    (sym_return_statement, STATE 11814), (sym_delete_statement, STATE 11814),
    (sym_raise_statement, STATE 11814), (sym_pass_statement, STATE 11814),
    (sym_break_statement, STATE 11814), (sym_continue_statement, STATE 11814),
    (sym_extension_definition, STATE 927), (sym_mlir_region, STATE 927),
    (sym_comptime_statement, STATE 927), (sym_if_statement, STATE 927),
    (sym_match_statement, STATE 927), (sym_for_statement, STATE 927),
    (sym_while_statement, STATE 927), (sym_try_statement, STATE 927),
    (sym_with_statement, STATE 927), (sym_function_definition, STATE 927),
    (sym_global_statement, STATE 11814), (sym_nonlocal_statement, STATE 11814),
    (sym_exec_statement, STATE 11814), (sym_type_alias_statement, STATE 11814),
    (sym_parameterized_alias_statement, STATE 11814), (sym_class_definition, STATE 927),
    (sym_trait_definition, STATE 927), (sym_decorated_definition, STATE 927),
    (sym_decorator, STATE 3670), (sym_block, STATE 5964), (sym_pattern, STATE 8086),
    (sym_tuple_pattern, STATE 8101), (sym_list_pattern, STATE 8101),
    (sym_list_splat_pattern, STATE 6819), (sym_as_pattern, STATE 7969),
    (sym_expression, STATE 9883), (sym_primary_expression, STATE 7326),
    (sym_comptime_expression, STATE 7017), (sym_transfer_expression, STATE 7017),
    (sym_not_operator, STATE 7969), (sym_boolean_operator, STATE 7969),
    (sym_binary_operator, STATE 7017), (sym_unary_operator, STATE 7017),
    (sym_comparison_operator, STATE 7969), (sym_lambda, STATE 7969),
    (sym_assignment, STATE 12425), (sym_augmented_assignment, STATE 12425),
    (sym_pattern_list, STATE 8578), (sym_yield, STATE 12425), (sym_attribute, STATE 6836),
    (sym_subscript, STATE 6838), (sym_call, STATE 6845), (sym_mlir_type, STATE 7017),
    (sym_list, STATE 7017), (sym_set, STATE 7017), (sym_tuple, STATE 7017),
    (sym_dictionary, STATE 7017), (sym_struct_literal, STATE 7017),
    (sym_list_comprehension, STATE 7017), (sym_dictionary_comprehension, STATE 7017),
    (sym_set_comprehension, STATE 7017), (sym_generator_expression, STATE 7017),
    (sym_parenthesized_expression, STATE 7017), (sym_conditional_expression, STATE 7969),
    (sym_concatenated_string, STATE 7017), (sym_string, STATE 6751), (sym_await, STATE 7017),
    (aux_sym_module_repeat1, STATE 927), (aux_sym_decorated_definition_repeat1, STATE 3670),
    (sym_identifier, ACTIONS 9), (anon_sym_import, ACTIONS 11), (anon_sym_from, ACTIONS 13),
    (anon_sym_LPAREN, ACTIONS 15), (anon_sym_STAR, ACTIONS 17), (anon_sym_print, ACTIONS 19),
    (anon_sym_comptime, ACTIONS 99), (anon_sym_assert, ACTIONS 23),
    (anon_sym___comptime_assert, ACTIONS 25), (anon_sym_return, ACTIONS 27),
    (anon_sym_del, ACTIONS 29), (anon_sym_raise, ACTIONS 31), (anon_sym_pass, ACTIONS 33),
    (anon_sym_break, ACTIONS 35), (anon_sym_continue, ACTIONS 37),
    (anon_sym___extension, ACTIONS 101), (anon_sym___mlir_region, ACTIONS 103),
    (anon_sym_if, ACTIONS 105), (anon_sym_match, ACTIONS 107), (anon_sym_async, ACTIONS 109),
    (anon_sym_for, ACTIONS 111), (anon_sym_while, ACTIONS 113), (anon_sym_try, ACTIONS 115),
    (anon_sym_with, ACTIONS 117), (anon_sym_def, ACTIONS 119), (anon_sym_fn, ACTIONS 119),
    (anon_sym_LBRACK, ACTIONS 59), (anon_sym_LBRACE, ACTIONS 61), (anon_sym_global, ACTIONS 63),
    (anon_sym_nonlocal, ACTIONS 65), (anon_sym_exec, ACTIONS 67), (anon_sym_type, ACTIONS 69),
    (anon_sym_class, ACTIONS 121), (anon_sym_struct, ACTIONS 121), (anon_sym_mut, ACTIONS 73),
    (anon_sym_out, ACTIONS 73), (anon_sym_trait, ACTIONS 123), (anon_sym_AT, ACTIONS 77),
    (anon_sym_DASH, ACTIONS 79), (anon_sym_PLUS, ACTIONS 79), (anon_sym_ref, ACTIONS 81),
    (anon_sym_var, ACTIONS 81), (anon_sym_not, ACTIONS 83), (anon_sym_TILDE, ACTIONS 79),
    (anon_sym_lambda, ACTIONS 85), (anon_sym_yield, ACTIONS 87), (sym_ellipsis, ACTIONS 89),
    (anon_sym___mlir_type, ACTIONS 91), (sym_integer, ACTIONS 93), (sym_float, ACTIONS 89),
    (anon_sym_await, ACTIONS 95), (sym_true, ACTIONS 93), (sym_false, ACTIONS 93),
    (sym_none, ACTIONS 93), (sym_comment, ACTIONS 3), (sym_line_continuation, ACTIONS 3),
    (sym__dedent, ACTIONS 125), (sym_string_start, ACTIONS 97)]"

definition parse_table_677 :: "(nat \<times> nat) list" where "parse_table_677 = [
    (sym__statement, STATE 927), (sym__simple_statements, STATE 927),
    (sym_import_statement, STATE 11814), (sym_future_import_statement, STATE 11814),
    (sym_import_from_statement, STATE 11814), (sym_print_statement, STATE 11814),
    (sym_assert_statement, STATE 11814), (sym_comptime_assert_statement, STATE 11814),
    (sym_expression_statement, STATE 11814), (sym_tuple_expression, STATE 12425),
    (sym_named_expression, STATE 7969), (sym__named_expression_lhs, STATE 12752),
    (sym_return_statement, STATE 11814), (sym_delete_statement, STATE 11814),
    (sym_raise_statement, STATE 11814), (sym_pass_statement, STATE 11814),
    (sym_break_statement, STATE 11814), (sym_continue_statement, STATE 11814),
    (sym_extension_definition, STATE 927), (sym_mlir_region, STATE 927),
    (sym_comptime_statement, STATE 927), (sym_if_statement, STATE 927),
    (sym_match_statement, STATE 927), (sym_for_statement, STATE 927),
    (sym_while_statement, STATE 927), (sym_try_statement, STATE 927),
    (sym_with_statement, STATE 927), (sym_function_definition, STATE 927),
    (sym_global_statement, STATE 11814), (sym_nonlocal_statement, STATE 11814),
    (sym_exec_statement, STATE 11814), (sym_type_alias_statement, STATE 11814),
    (sym_parameterized_alias_statement, STATE 11814), (sym_class_definition, STATE 927),
    (sym_trait_definition, STATE 927), (sym_decorated_definition, STATE 927),
    (sym_decorator, STATE 3670), (sym_block, STATE 5965), (sym_pattern, STATE 8086),
    (sym_tuple_pattern, STATE 8101), (sym_list_pattern, STATE 8101),
    (sym_list_splat_pattern, STATE 6819), (sym_as_pattern, STATE 7969),
    (sym_expression, STATE 9883), (sym_primary_expression, STATE 7326),
    (sym_comptime_expression, STATE 7017), (sym_transfer_expression, STATE 7017),
    (sym_not_operator, STATE 7969), (sym_boolean_operator, STATE 7969),
    (sym_binary_operator, STATE 7017), (sym_unary_operator, STATE 7017),
    (sym_comparison_operator, STATE 7969), (sym_lambda, STATE 7969),
    (sym_assignment, STATE 12425), (sym_augmented_assignment, STATE 12425),
    (sym_pattern_list, STATE 8578), (sym_yield, STATE 12425), (sym_attribute, STATE 6836),
    (sym_subscript, STATE 6838), (sym_call, STATE 6845), (sym_mlir_type, STATE 7017),
    (sym_list, STATE 7017), (sym_set, STATE 7017), (sym_tuple, STATE 7017),
    (sym_dictionary, STATE 7017), (sym_struct_literal, STATE 7017),
    (sym_list_comprehension, STATE 7017), (sym_dictionary_comprehension, STATE 7017),
    (sym_set_comprehension, STATE 7017), (sym_generator_expression, STATE 7017),
    (sym_parenthesized_expression, STATE 7017), (sym_conditional_expression, STATE 7969),
    (sym_concatenated_string, STATE 7017), (sym_string, STATE 6751), (sym_await, STATE 7017),
    (aux_sym_module_repeat1, STATE 927), (aux_sym_decorated_definition_repeat1, STATE 3670),
    (sym_identifier, ACTIONS 9), (anon_sym_import, ACTIONS 11), (anon_sym_from, ACTIONS 13),
    (anon_sym_LPAREN, ACTIONS 15), (anon_sym_STAR, ACTIONS 17), (anon_sym_print, ACTIONS 19),
    (anon_sym_comptime, ACTIONS 99), (anon_sym_assert, ACTIONS 23),
    (anon_sym___comptime_assert, ACTIONS 25), (anon_sym_return, ACTIONS 27),
    (anon_sym_del, ACTIONS 29), (anon_sym_raise, ACTIONS 31), (anon_sym_pass, ACTIONS 33),
    (anon_sym_break, ACTIONS 35), (anon_sym_continue, ACTIONS 37),
    (anon_sym___extension, ACTIONS 101), (anon_sym___mlir_region, ACTIONS 103),
    (anon_sym_if, ACTIONS 105), (anon_sym_match, ACTIONS 107), (anon_sym_async, ACTIONS 109),
    (anon_sym_for, ACTIONS 111), (anon_sym_while, ACTIONS 113), (anon_sym_try, ACTIONS 115),
    (anon_sym_with, ACTIONS 117), (anon_sym_def, ACTIONS 119), (anon_sym_fn, ACTIONS 119),
    (anon_sym_LBRACK, ACTIONS 59), (anon_sym_LBRACE, ACTIONS 61), (anon_sym_global, ACTIONS 63),
    (anon_sym_nonlocal, ACTIONS 65), (anon_sym_exec, ACTIONS 67), (anon_sym_type, ACTIONS 69),
    (anon_sym_class, ACTIONS 121), (anon_sym_struct, ACTIONS 121), (anon_sym_mut, ACTIONS 73),
    (anon_sym_out, ACTIONS 73), (anon_sym_trait, ACTIONS 123), (anon_sym_AT, ACTIONS 77),
    (anon_sym_DASH, ACTIONS 79), (anon_sym_PLUS, ACTIONS 79), (anon_sym_ref, ACTIONS 81),
    (anon_sym_var, ACTIONS 81), (anon_sym_not, ACTIONS 83), (anon_sym_TILDE, ACTIONS 79),
    (anon_sym_lambda, ACTIONS 85), (anon_sym_yield, ACTIONS 87), (sym_ellipsis, ACTIONS 89),
    (anon_sym___mlir_type, ACTIONS 91), (sym_integer, ACTIONS 93), (sym_float, ACTIONS 89),
    (anon_sym_await, ACTIONS 95), (sym_true, ACTIONS 93), (sym_false, ACTIONS 93),
    (sym_none, ACTIONS 93), (sym_comment, ACTIONS 3), (sym_line_continuation, ACTIONS 3),
    (sym__dedent, ACTIONS 125), (sym_string_start, ACTIONS 97)]"

definition parse_table_678 :: "(nat \<times> nat) list" where "parse_table_678 = [
    (sym__statement, STATE 927), (sym__simple_statements, STATE 927),
    (sym_import_statement, STATE 11814), (sym_future_import_statement, STATE 11814),
    (sym_import_from_statement, STATE 11814), (sym_print_statement, STATE 11814),
    (sym_assert_statement, STATE 11814), (sym_comptime_assert_statement, STATE 11814),
    (sym_expression_statement, STATE 11814), (sym_tuple_expression, STATE 12425),
    (sym_named_expression, STATE 7969), (sym__named_expression_lhs, STATE 12752),
    (sym_return_statement, STATE 11814), (sym_delete_statement, STATE 11814),
    (sym_raise_statement, STATE 11814), (sym_pass_statement, STATE 11814),
    (sym_break_statement, STATE 11814), (sym_continue_statement, STATE 11814),
    (sym_extension_definition, STATE 927), (sym_mlir_region, STATE 927),
    (sym_comptime_statement, STATE 927), (sym_if_statement, STATE 927),
    (sym_match_statement, STATE 927), (sym_for_statement, STATE 927),
    (sym_while_statement, STATE 927), (sym_try_statement, STATE 927),
    (sym_with_statement, STATE 927), (sym_function_definition, STATE 927),
    (sym_global_statement, STATE 11814), (sym_nonlocal_statement, STATE 11814),
    (sym_exec_statement, STATE 11814), (sym_type_alias_statement, STATE 11814),
    (sym_parameterized_alias_statement, STATE 11814), (sym_class_definition, STATE 927),
    (sym_trait_definition, STATE 927), (sym_decorated_definition, STATE 927),
    (sym_decorator, STATE 3670), (sym_block, STATE 5968), (sym_pattern, STATE 8086),
    (sym_tuple_pattern, STATE 8101), (sym_list_pattern, STATE 8101),
    (sym_list_splat_pattern, STATE 6819), (sym_as_pattern, STATE 7969),
    (sym_expression, STATE 9883), (sym_primary_expression, STATE 7326),
    (sym_comptime_expression, STATE 7017), (sym_transfer_expression, STATE 7017),
    (sym_not_operator, STATE 7969), (sym_boolean_operator, STATE 7969),
    (sym_binary_operator, STATE 7017), (sym_unary_operator, STATE 7017),
    (sym_comparison_operator, STATE 7969), (sym_lambda, STATE 7969),
    (sym_assignment, STATE 12425), (sym_augmented_assignment, STATE 12425),
    (sym_pattern_list, STATE 8578), (sym_yield, STATE 12425), (sym_attribute, STATE 6836),
    (sym_subscript, STATE 6838), (sym_call, STATE 6845), (sym_mlir_type, STATE 7017),
    (sym_list, STATE 7017), (sym_set, STATE 7017), (sym_tuple, STATE 7017),
    (sym_dictionary, STATE 7017), (sym_struct_literal, STATE 7017),
    (sym_list_comprehension, STATE 7017), (sym_dictionary_comprehension, STATE 7017),
    (sym_set_comprehension, STATE 7017), (sym_generator_expression, STATE 7017),
    (sym_parenthesized_expression, STATE 7017), (sym_conditional_expression, STATE 7969),
    (sym_concatenated_string, STATE 7017), (sym_string, STATE 6751), (sym_await, STATE 7017),
    (aux_sym_module_repeat1, STATE 927), (aux_sym_decorated_definition_repeat1, STATE 3670),
    (sym_identifier, ACTIONS 9), (anon_sym_import, ACTIONS 11), (anon_sym_from, ACTIONS 13),
    (anon_sym_LPAREN, ACTIONS 15), (anon_sym_STAR, ACTIONS 17), (anon_sym_print, ACTIONS 19),
    (anon_sym_comptime, ACTIONS 99), (anon_sym_assert, ACTIONS 23),
    (anon_sym___comptime_assert, ACTIONS 25), (anon_sym_return, ACTIONS 27),
    (anon_sym_del, ACTIONS 29), (anon_sym_raise, ACTIONS 31), (anon_sym_pass, ACTIONS 33),
    (anon_sym_break, ACTIONS 35), (anon_sym_continue, ACTIONS 37),
    (anon_sym___extension, ACTIONS 101), (anon_sym___mlir_region, ACTIONS 103),
    (anon_sym_if, ACTIONS 105), (anon_sym_match, ACTIONS 107), (anon_sym_async, ACTIONS 109),
    (anon_sym_for, ACTIONS 111), (anon_sym_while, ACTIONS 113), (anon_sym_try, ACTIONS 115),
    (anon_sym_with, ACTIONS 117), (anon_sym_def, ACTIONS 119), (anon_sym_fn, ACTIONS 119),
    (anon_sym_LBRACK, ACTIONS 59), (anon_sym_LBRACE, ACTIONS 61), (anon_sym_global, ACTIONS 63),
    (anon_sym_nonlocal, ACTIONS 65), (anon_sym_exec, ACTIONS 67), (anon_sym_type, ACTIONS 69),
    (anon_sym_class, ACTIONS 121), (anon_sym_struct, ACTIONS 121), (anon_sym_mut, ACTIONS 73),
    (anon_sym_out, ACTIONS 73), (anon_sym_trait, ACTIONS 123), (anon_sym_AT, ACTIONS 77),
    (anon_sym_DASH, ACTIONS 79), (anon_sym_PLUS, ACTIONS 79), (anon_sym_ref, ACTIONS 81),
    (anon_sym_var, ACTIONS 81), (anon_sym_not, ACTIONS 83), (anon_sym_TILDE, ACTIONS 79),
    (anon_sym_lambda, ACTIONS 85), (anon_sym_yield, ACTIONS 87), (sym_ellipsis, ACTIONS 89),
    (anon_sym___mlir_type, ACTIONS 91), (sym_integer, ACTIONS 93), (sym_float, ACTIONS 89),
    (anon_sym_await, ACTIONS 95), (sym_true, ACTIONS 93), (sym_false, ACTIONS 93),
    (sym_none, ACTIONS 93), (sym_comment, ACTIONS 3), (sym_line_continuation, ACTIONS 3),
    (sym__dedent, ACTIONS 125), (sym_string_start, ACTIONS 97)]"

definition parse_table_679 :: "(nat \<times> nat) list" where "parse_table_679 = [
    (sym__statement, STATE 927), (sym__simple_statements, STATE 927),
    (sym_import_statement, STATE 11814), (sym_future_import_statement, STATE 11814),
    (sym_import_from_statement, STATE 11814), (sym_print_statement, STATE 11814),
    (sym_assert_statement, STATE 11814), (sym_comptime_assert_statement, STATE 11814),
    (sym_expression_statement, STATE 11814), (sym_tuple_expression, STATE 12425),
    (sym_named_expression, STATE 7969), (sym__named_expression_lhs, STATE 12752),
    (sym_return_statement, STATE 11814), (sym_delete_statement, STATE 11814),
    (sym_raise_statement, STATE 11814), (sym_pass_statement, STATE 11814),
    (sym_break_statement, STATE 11814), (sym_continue_statement, STATE 11814),
    (sym_extension_definition, STATE 927), (sym_mlir_region, STATE 927),
    (sym_comptime_statement, STATE 927), (sym_if_statement, STATE 927),
    (sym_match_statement, STATE 927), (sym_for_statement, STATE 927),
    (sym_while_statement, STATE 927), (sym_try_statement, STATE 927),
    (sym_with_statement, STATE 927), (sym_function_definition, STATE 927),
    (sym_global_statement, STATE 11814), (sym_nonlocal_statement, STATE 11814),
    (sym_exec_statement, STATE 11814), (sym_type_alias_statement, STATE 11814),
    (sym_parameterized_alias_statement, STATE 11814), (sym_class_definition, STATE 927),
    (sym_trait_definition, STATE 927), (sym_decorated_definition, STATE 927),
    (sym_decorator, STATE 3670), (sym_block, STATE 5974), (sym_pattern, STATE 8086),
    (sym_tuple_pattern, STATE 8101), (sym_list_pattern, STATE 8101),
    (sym_list_splat_pattern, STATE 6819), (sym_as_pattern, STATE 7969),
    (sym_expression, STATE 9883), (sym_primary_expression, STATE 7326),
    (sym_comptime_expression, STATE 7017), (sym_transfer_expression, STATE 7017),
    (sym_not_operator, STATE 7969), (sym_boolean_operator, STATE 7969),
    (sym_binary_operator, STATE 7017), (sym_unary_operator, STATE 7017),
    (sym_comparison_operator, STATE 7969), (sym_lambda, STATE 7969),
    (sym_assignment, STATE 12425), (sym_augmented_assignment, STATE 12425),
    (sym_pattern_list, STATE 8578), (sym_yield, STATE 12425), (sym_attribute, STATE 6836),
    (sym_subscript, STATE 6838), (sym_call, STATE 6845), (sym_mlir_type, STATE 7017),
    (sym_list, STATE 7017), (sym_set, STATE 7017), (sym_tuple, STATE 7017),
    (sym_dictionary, STATE 7017), (sym_struct_literal, STATE 7017),
    (sym_list_comprehension, STATE 7017), (sym_dictionary_comprehension, STATE 7017),
    (sym_set_comprehension, STATE 7017), (sym_generator_expression, STATE 7017),
    (sym_parenthesized_expression, STATE 7017), (sym_conditional_expression, STATE 7969),
    (sym_concatenated_string, STATE 7017), (sym_string, STATE 6751), (sym_await, STATE 7017),
    (aux_sym_module_repeat1, STATE 927), (aux_sym_decorated_definition_repeat1, STATE 3670),
    (sym_identifier, ACTIONS 9), (anon_sym_import, ACTIONS 11), (anon_sym_from, ACTIONS 13),
    (anon_sym_LPAREN, ACTIONS 15), (anon_sym_STAR, ACTIONS 17), (anon_sym_print, ACTIONS 19),
    (anon_sym_comptime, ACTIONS 99), (anon_sym_assert, ACTIONS 23),
    (anon_sym___comptime_assert, ACTIONS 25), (anon_sym_return, ACTIONS 27),
    (anon_sym_del, ACTIONS 29), (anon_sym_raise, ACTIONS 31), (anon_sym_pass, ACTIONS 33),
    (anon_sym_break, ACTIONS 35), (anon_sym_continue, ACTIONS 37),
    (anon_sym___extension, ACTIONS 101), (anon_sym___mlir_region, ACTIONS 103),
    (anon_sym_if, ACTIONS 105), (anon_sym_match, ACTIONS 107), (anon_sym_async, ACTIONS 109),
    (anon_sym_for, ACTIONS 111), (anon_sym_while, ACTIONS 113), (anon_sym_try, ACTIONS 115),
    (anon_sym_with, ACTIONS 117), (anon_sym_def, ACTIONS 119), (anon_sym_fn, ACTIONS 119),
    (anon_sym_LBRACK, ACTIONS 59), (anon_sym_LBRACE, ACTIONS 61), (anon_sym_global, ACTIONS 63),
    (anon_sym_nonlocal, ACTIONS 65), (anon_sym_exec, ACTIONS 67), (anon_sym_type, ACTIONS 69),
    (anon_sym_class, ACTIONS 121), (anon_sym_struct, ACTIONS 121), (anon_sym_mut, ACTIONS 73),
    (anon_sym_out, ACTIONS 73), (anon_sym_trait, ACTIONS 123), (anon_sym_AT, ACTIONS 77),
    (anon_sym_DASH, ACTIONS 79), (anon_sym_PLUS, ACTIONS 79), (anon_sym_ref, ACTIONS 81),
    (anon_sym_var, ACTIONS 81), (anon_sym_not, ACTIONS 83), (anon_sym_TILDE, ACTIONS 79),
    (anon_sym_lambda, ACTIONS 85), (anon_sym_yield, ACTIONS 87), (sym_ellipsis, ACTIONS 89),
    (anon_sym___mlir_type, ACTIONS 91), (sym_integer, ACTIONS 93), (sym_float, ACTIONS 89),
    (anon_sym_await, ACTIONS 95), (sym_true, ACTIONS 93), (sym_false, ACTIONS 93),
    (sym_none, ACTIONS 93), (sym_comment, ACTIONS 3), (sym_line_continuation, ACTIONS 3),
    (sym__dedent, ACTIONS 125), (sym_string_start, ACTIONS 97)]"

definition parse_table_680 :: "(nat \<times> nat) list" where "parse_table_680 = [
    (sym__statement, STATE 927), (sym__simple_statements, STATE 927),
    (sym_import_statement, STATE 11814), (sym_future_import_statement, STATE 11814),
    (sym_import_from_statement, STATE 11814), (sym_print_statement, STATE 11814),
    (sym_assert_statement, STATE 11814), (sym_comptime_assert_statement, STATE 11814),
    (sym_expression_statement, STATE 11814), (sym_tuple_expression, STATE 12425),
    (sym_named_expression, STATE 7969), (sym__named_expression_lhs, STATE 12752),
    (sym_return_statement, STATE 11814), (sym_delete_statement, STATE 11814),
    (sym_raise_statement, STATE 11814), (sym_pass_statement, STATE 11814),
    (sym_break_statement, STATE 11814), (sym_continue_statement, STATE 11814),
    (sym_extension_definition, STATE 927), (sym_mlir_region, STATE 927),
    (sym_comptime_statement, STATE 927), (sym_if_statement, STATE 927),
    (sym_match_statement, STATE 927), (sym_for_statement, STATE 927),
    (sym_while_statement, STATE 927), (sym_try_statement, STATE 927),
    (sym_with_statement, STATE 927), (sym_function_definition, STATE 927),
    (sym_global_statement, STATE 11814), (sym_nonlocal_statement, STATE 11814),
    (sym_exec_statement, STATE 11814), (sym_type_alias_statement, STATE 11814),
    (sym_parameterized_alias_statement, STATE 11814), (sym_class_definition, STATE 927),
    (sym_trait_definition, STATE 927), (sym_decorated_definition, STATE 927),
    (sym_decorator, STATE 3670), (sym_block, STATE 5978), (sym_pattern, STATE 8086),
    (sym_tuple_pattern, STATE 8101), (sym_list_pattern, STATE 8101),
    (sym_list_splat_pattern, STATE 6819), (sym_as_pattern, STATE 7969),
    (sym_expression, STATE 9883), (sym_primary_expression, STATE 7326),
    (sym_comptime_expression, STATE 7017), (sym_transfer_expression, STATE 7017),
    (sym_not_operator, STATE 7969), (sym_boolean_operator, STATE 7969),
    (sym_binary_operator, STATE 7017), (sym_unary_operator, STATE 7017),
    (sym_comparison_operator, STATE 7969), (sym_lambda, STATE 7969),
    (sym_assignment, STATE 12425), (sym_augmented_assignment, STATE 12425),
    (sym_pattern_list, STATE 8578), (sym_yield, STATE 12425), (sym_attribute, STATE 6836),
    (sym_subscript, STATE 6838), (sym_call, STATE 6845), (sym_mlir_type, STATE 7017),
    (sym_list, STATE 7017), (sym_set, STATE 7017), (sym_tuple, STATE 7017),
    (sym_dictionary, STATE 7017), (sym_struct_literal, STATE 7017),
    (sym_list_comprehension, STATE 7017), (sym_dictionary_comprehension, STATE 7017),
    (sym_set_comprehension, STATE 7017), (sym_generator_expression, STATE 7017),
    (sym_parenthesized_expression, STATE 7017), (sym_conditional_expression, STATE 7969),
    (sym_concatenated_string, STATE 7017), (sym_string, STATE 6751), (sym_await, STATE 7017),
    (aux_sym_module_repeat1, STATE 927), (aux_sym_decorated_definition_repeat1, STATE 3670),
    (sym_identifier, ACTIONS 9), (anon_sym_import, ACTIONS 11), (anon_sym_from, ACTIONS 13),
    (anon_sym_LPAREN, ACTIONS 15), (anon_sym_STAR, ACTIONS 17), (anon_sym_print, ACTIONS 19),
    (anon_sym_comptime, ACTIONS 99), (anon_sym_assert, ACTIONS 23),
    (anon_sym___comptime_assert, ACTIONS 25), (anon_sym_return, ACTIONS 27),
    (anon_sym_del, ACTIONS 29), (anon_sym_raise, ACTIONS 31), (anon_sym_pass, ACTIONS 33),
    (anon_sym_break, ACTIONS 35), (anon_sym_continue, ACTIONS 37),
    (anon_sym___extension, ACTIONS 101), (anon_sym___mlir_region, ACTIONS 103),
    (anon_sym_if, ACTIONS 105), (anon_sym_match, ACTIONS 107), (anon_sym_async, ACTIONS 109),
    (anon_sym_for, ACTIONS 111), (anon_sym_while, ACTIONS 113), (anon_sym_try, ACTIONS 115),
    (anon_sym_with, ACTIONS 117), (anon_sym_def, ACTIONS 119), (anon_sym_fn, ACTIONS 119),
    (anon_sym_LBRACK, ACTIONS 59), (anon_sym_LBRACE, ACTIONS 61), (anon_sym_global, ACTIONS 63),
    (anon_sym_nonlocal, ACTIONS 65), (anon_sym_exec, ACTIONS 67), (anon_sym_type, ACTIONS 69),
    (anon_sym_class, ACTIONS 121), (anon_sym_struct, ACTIONS 121), (anon_sym_mut, ACTIONS 73),
    (anon_sym_out, ACTIONS 73), (anon_sym_trait, ACTIONS 123), (anon_sym_AT, ACTIONS 77),
    (anon_sym_DASH, ACTIONS 79), (anon_sym_PLUS, ACTIONS 79), (anon_sym_ref, ACTIONS 81),
    (anon_sym_var, ACTIONS 81), (anon_sym_not, ACTIONS 83), (anon_sym_TILDE, ACTIONS 79),
    (anon_sym_lambda, ACTIONS 85), (anon_sym_yield, ACTIONS 87), (sym_ellipsis, ACTIONS 89),
    (anon_sym___mlir_type, ACTIONS 91), (sym_integer, ACTIONS 93), (sym_float, ACTIONS 89),
    (anon_sym_await, ACTIONS 95), (sym_true, ACTIONS 93), (sym_false, ACTIONS 93),
    (sym_none, ACTIONS 93), (sym_comment, ACTIONS 3), (sym_line_continuation, ACTIONS 3),
    (sym__dedent, ACTIONS 125), (sym_string_start, ACTIONS 97)]"

definition parse_table_681 :: "(nat \<times> nat) list" where "parse_table_681 = [
    (sym__statement, STATE 927), (sym__simple_statements, STATE 927),
    (sym_import_statement, STATE 11814), (sym_future_import_statement, STATE 11814),
    (sym_import_from_statement, STATE 11814), (sym_print_statement, STATE 11814),
    (sym_assert_statement, STATE 11814), (sym_comptime_assert_statement, STATE 11814),
    (sym_expression_statement, STATE 11814), (sym_tuple_expression, STATE 12425),
    (sym_named_expression, STATE 7969), (sym__named_expression_lhs, STATE 12752),
    (sym_return_statement, STATE 11814), (sym_delete_statement, STATE 11814),
    (sym_raise_statement, STATE 11814), (sym_pass_statement, STATE 11814),
    (sym_break_statement, STATE 11814), (sym_continue_statement, STATE 11814),
    (sym_extension_definition, STATE 927), (sym_mlir_region, STATE 927),
    (sym_comptime_statement, STATE 927), (sym_if_statement, STATE 927),
    (sym_match_statement, STATE 927), (sym_for_statement, STATE 927),
    (sym_while_statement, STATE 927), (sym_try_statement, STATE 927),
    (sym_with_statement, STATE 927), (sym_function_definition, STATE 927),
    (sym_global_statement, STATE 11814), (sym_nonlocal_statement, STATE 11814),
    (sym_exec_statement, STATE 11814), (sym_type_alias_statement, STATE 11814),
    (sym_parameterized_alias_statement, STATE 11814), (sym_class_definition, STATE 927),
    (sym_trait_definition, STATE 927), (sym_decorated_definition, STATE 927),
    (sym_decorator, STATE 3670), (sym_block, STATE 5982), (sym_pattern, STATE 8086),
    (sym_tuple_pattern, STATE 8101), (sym_list_pattern, STATE 8101),
    (sym_list_splat_pattern, STATE 6819), (sym_as_pattern, STATE 7969),
    (sym_expression, STATE 9883), (sym_primary_expression, STATE 7326),
    (sym_comptime_expression, STATE 7017), (sym_transfer_expression, STATE 7017),
    (sym_not_operator, STATE 7969), (sym_boolean_operator, STATE 7969),
    (sym_binary_operator, STATE 7017), (sym_unary_operator, STATE 7017),
    (sym_comparison_operator, STATE 7969), (sym_lambda, STATE 7969),
    (sym_assignment, STATE 12425), (sym_augmented_assignment, STATE 12425),
    (sym_pattern_list, STATE 8578), (sym_yield, STATE 12425), (sym_attribute, STATE 6836),
    (sym_subscript, STATE 6838), (sym_call, STATE 6845), (sym_mlir_type, STATE 7017),
    (sym_list, STATE 7017), (sym_set, STATE 7017), (sym_tuple, STATE 7017),
    (sym_dictionary, STATE 7017), (sym_struct_literal, STATE 7017),
    (sym_list_comprehension, STATE 7017), (sym_dictionary_comprehension, STATE 7017),
    (sym_set_comprehension, STATE 7017), (sym_generator_expression, STATE 7017),
    (sym_parenthesized_expression, STATE 7017), (sym_conditional_expression, STATE 7969),
    (sym_concatenated_string, STATE 7017), (sym_string, STATE 6751), (sym_await, STATE 7017),
    (aux_sym_module_repeat1, STATE 927), (aux_sym_decorated_definition_repeat1, STATE 3670),
    (sym_identifier, ACTIONS 9), (anon_sym_import, ACTIONS 11), (anon_sym_from, ACTIONS 13),
    (anon_sym_LPAREN, ACTIONS 15), (anon_sym_STAR, ACTIONS 17), (anon_sym_print, ACTIONS 19),
    (anon_sym_comptime, ACTIONS 99), (anon_sym_assert, ACTIONS 23),
    (anon_sym___comptime_assert, ACTIONS 25), (anon_sym_return, ACTIONS 27),
    (anon_sym_del, ACTIONS 29), (anon_sym_raise, ACTIONS 31), (anon_sym_pass, ACTIONS 33),
    (anon_sym_break, ACTIONS 35), (anon_sym_continue, ACTIONS 37),
    (anon_sym___extension, ACTIONS 101), (anon_sym___mlir_region, ACTIONS 103),
    (anon_sym_if, ACTIONS 105), (anon_sym_match, ACTIONS 107), (anon_sym_async, ACTIONS 109),
    (anon_sym_for, ACTIONS 111), (anon_sym_while, ACTIONS 113), (anon_sym_try, ACTIONS 115),
    (anon_sym_with, ACTIONS 117), (anon_sym_def, ACTIONS 119), (anon_sym_fn, ACTIONS 119),
    (anon_sym_LBRACK, ACTIONS 59), (anon_sym_LBRACE, ACTIONS 61), (anon_sym_global, ACTIONS 63),
    (anon_sym_nonlocal, ACTIONS 65), (anon_sym_exec, ACTIONS 67), (anon_sym_type, ACTIONS 69),
    (anon_sym_class, ACTIONS 121), (anon_sym_struct, ACTIONS 121), (anon_sym_mut, ACTIONS 73),
    (anon_sym_out, ACTIONS 73), (anon_sym_trait, ACTIONS 123), (anon_sym_AT, ACTIONS 77),
    (anon_sym_DASH, ACTIONS 79), (anon_sym_PLUS, ACTIONS 79), (anon_sym_ref, ACTIONS 81),
    (anon_sym_var, ACTIONS 81), (anon_sym_not, ACTIONS 83), (anon_sym_TILDE, ACTIONS 79),
    (anon_sym_lambda, ACTIONS 85), (anon_sym_yield, ACTIONS 87), (sym_ellipsis, ACTIONS 89),
    (anon_sym___mlir_type, ACTIONS 91), (sym_integer, ACTIONS 93), (sym_float, ACTIONS 89),
    (anon_sym_await, ACTIONS 95), (sym_true, ACTIONS 93), (sym_false, ACTIONS 93),
    (sym_none, ACTIONS 93), (sym_comment, ACTIONS 3), (sym_line_continuation, ACTIONS 3),
    (sym__dedent, ACTIONS 125), (sym_string_start, ACTIONS 97)]"

definition parse_table_682 :: "(nat \<times> nat) list" where "parse_table_682 = [
    (sym__statement, STATE 927), (sym__simple_statements, STATE 927),
    (sym_import_statement, STATE 11814), (sym_future_import_statement, STATE 11814),
    (sym_import_from_statement, STATE 11814), (sym_print_statement, STATE 11814),
    (sym_assert_statement, STATE 11814), (sym_comptime_assert_statement, STATE 11814),
    (sym_expression_statement, STATE 11814), (sym_tuple_expression, STATE 12425),
    (sym_named_expression, STATE 7969), (sym__named_expression_lhs, STATE 12752),
    (sym_return_statement, STATE 11814), (sym_delete_statement, STATE 11814),
    (sym_raise_statement, STATE 11814), (sym_pass_statement, STATE 11814),
    (sym_break_statement, STATE 11814), (sym_continue_statement, STATE 11814),
    (sym_extension_definition, STATE 927), (sym_mlir_region, STATE 927),
    (sym_comptime_statement, STATE 927), (sym_if_statement, STATE 927),
    (sym_match_statement, STATE 927), (sym_for_statement, STATE 927),
    (sym_while_statement, STATE 927), (sym_try_statement, STATE 927),
    (sym_with_statement, STATE 927), (sym_function_definition, STATE 927),
    (sym_global_statement, STATE 11814), (sym_nonlocal_statement, STATE 11814),
    (sym_exec_statement, STATE 11814), (sym_type_alias_statement, STATE 11814),
    (sym_parameterized_alias_statement, STATE 11814), (sym_class_definition, STATE 927),
    (sym_trait_definition, STATE 927), (sym_decorated_definition, STATE 927),
    (sym_decorator, STATE 3670), (sym_block, STATE 5988), (sym_pattern, STATE 8086),
    (sym_tuple_pattern, STATE 8101), (sym_list_pattern, STATE 8101),
    (sym_list_splat_pattern, STATE 6819), (sym_as_pattern, STATE 7969),
    (sym_expression, STATE 9883), (sym_primary_expression, STATE 7326),
    (sym_comptime_expression, STATE 7017), (sym_transfer_expression, STATE 7017),
    (sym_not_operator, STATE 7969), (sym_boolean_operator, STATE 7969),
    (sym_binary_operator, STATE 7017), (sym_unary_operator, STATE 7017),
    (sym_comparison_operator, STATE 7969), (sym_lambda, STATE 7969),
    (sym_assignment, STATE 12425), (sym_augmented_assignment, STATE 12425),
    (sym_pattern_list, STATE 8578), (sym_yield, STATE 12425), (sym_attribute, STATE 6836),
    (sym_subscript, STATE 6838), (sym_call, STATE 6845), (sym_mlir_type, STATE 7017),
    (sym_list, STATE 7017), (sym_set, STATE 7017), (sym_tuple, STATE 7017),
    (sym_dictionary, STATE 7017), (sym_struct_literal, STATE 7017),
    (sym_list_comprehension, STATE 7017), (sym_dictionary_comprehension, STATE 7017),
    (sym_set_comprehension, STATE 7017), (sym_generator_expression, STATE 7017),
    (sym_parenthesized_expression, STATE 7017), (sym_conditional_expression, STATE 7969),
    (sym_concatenated_string, STATE 7017), (sym_string, STATE 6751), (sym_await, STATE 7017),
    (aux_sym_module_repeat1, STATE 927), (aux_sym_decorated_definition_repeat1, STATE 3670),
    (sym_identifier, ACTIONS 9), (anon_sym_import, ACTIONS 11), (anon_sym_from, ACTIONS 13),
    (anon_sym_LPAREN, ACTIONS 15), (anon_sym_STAR, ACTIONS 17), (anon_sym_print, ACTIONS 19),
    (anon_sym_comptime, ACTIONS 99), (anon_sym_assert, ACTIONS 23),
    (anon_sym___comptime_assert, ACTIONS 25), (anon_sym_return, ACTIONS 27),
    (anon_sym_del, ACTIONS 29), (anon_sym_raise, ACTIONS 31), (anon_sym_pass, ACTIONS 33),
    (anon_sym_break, ACTIONS 35), (anon_sym_continue, ACTIONS 37),
    (anon_sym___extension, ACTIONS 101), (anon_sym___mlir_region, ACTIONS 103),
    (anon_sym_if, ACTIONS 105), (anon_sym_match, ACTIONS 107), (anon_sym_async, ACTIONS 109),
    (anon_sym_for, ACTIONS 111), (anon_sym_while, ACTIONS 113), (anon_sym_try, ACTIONS 115),
    (anon_sym_with, ACTIONS 117), (anon_sym_def, ACTIONS 119), (anon_sym_fn, ACTIONS 119),
    (anon_sym_LBRACK, ACTIONS 59), (anon_sym_LBRACE, ACTIONS 61), (anon_sym_global, ACTIONS 63),
    (anon_sym_nonlocal, ACTIONS 65), (anon_sym_exec, ACTIONS 67), (anon_sym_type, ACTIONS 69),
    (anon_sym_class, ACTIONS 121), (anon_sym_struct, ACTIONS 121), (anon_sym_mut, ACTIONS 73),
    (anon_sym_out, ACTIONS 73), (anon_sym_trait, ACTIONS 123), (anon_sym_AT, ACTIONS 77),
    (anon_sym_DASH, ACTIONS 79), (anon_sym_PLUS, ACTIONS 79), (anon_sym_ref, ACTIONS 81),
    (anon_sym_var, ACTIONS 81), (anon_sym_not, ACTIONS 83), (anon_sym_TILDE, ACTIONS 79),
    (anon_sym_lambda, ACTIONS 85), (anon_sym_yield, ACTIONS 87), (sym_ellipsis, ACTIONS 89),
    (anon_sym___mlir_type, ACTIONS 91), (sym_integer, ACTIONS 93), (sym_float, ACTIONS 89),
    (anon_sym_await, ACTIONS 95), (sym_true, ACTIONS 93), (sym_false, ACTIONS 93),
    (sym_none, ACTIONS 93), (sym_comment, ACTIONS 3), (sym_line_continuation, ACTIONS 3),
    (sym__dedent, ACTIONS 125), (sym_string_start, ACTIONS 97)]"

definition parse_table_683 :: "(nat \<times> nat) list" where "parse_table_683 = [
    (sym__statement, STATE 927), (sym__simple_statements, STATE 927),
    (sym_import_statement, STATE 11814), (sym_future_import_statement, STATE 11814),
    (sym_import_from_statement, STATE 11814), (sym_print_statement, STATE 11814),
    (sym_assert_statement, STATE 11814), (sym_comptime_assert_statement, STATE 11814),
    (sym_expression_statement, STATE 11814), (sym_tuple_expression, STATE 12425),
    (sym_named_expression, STATE 7969), (sym__named_expression_lhs, STATE 12752),
    (sym_return_statement, STATE 11814), (sym_delete_statement, STATE 11814),
    (sym_raise_statement, STATE 11814), (sym_pass_statement, STATE 11814),
    (sym_break_statement, STATE 11814), (sym_continue_statement, STATE 11814),
    (sym_extension_definition, STATE 927), (sym_mlir_region, STATE 927),
    (sym_comptime_statement, STATE 927), (sym_if_statement, STATE 927),
    (sym_match_statement, STATE 927), (sym_for_statement, STATE 927),
    (sym_while_statement, STATE 927), (sym_try_statement, STATE 927),
    (sym_with_statement, STATE 927), (sym_function_definition, STATE 927),
    (sym_global_statement, STATE 11814), (sym_nonlocal_statement, STATE 11814),
    (sym_exec_statement, STATE 11814), (sym_type_alias_statement, STATE 11814),
    (sym_parameterized_alias_statement, STATE 11814), (sym_class_definition, STATE 927),
    (sym_trait_definition, STATE 927), (sym_decorated_definition, STATE 927),
    (sym_decorator, STATE 3670), (sym_block, STATE 5993), (sym_pattern, STATE 8086),
    (sym_tuple_pattern, STATE 8101), (sym_list_pattern, STATE 8101),
    (sym_list_splat_pattern, STATE 6819), (sym_as_pattern, STATE 7969),
    (sym_expression, STATE 9883), (sym_primary_expression, STATE 7326),
    (sym_comptime_expression, STATE 7017), (sym_transfer_expression, STATE 7017),
    (sym_not_operator, STATE 7969), (sym_boolean_operator, STATE 7969),
    (sym_binary_operator, STATE 7017), (sym_unary_operator, STATE 7017),
    (sym_comparison_operator, STATE 7969), (sym_lambda, STATE 7969),
    (sym_assignment, STATE 12425), (sym_augmented_assignment, STATE 12425),
    (sym_pattern_list, STATE 8578), (sym_yield, STATE 12425), (sym_attribute, STATE 6836),
    (sym_subscript, STATE 6838), (sym_call, STATE 6845), (sym_mlir_type, STATE 7017),
    (sym_list, STATE 7017), (sym_set, STATE 7017), (sym_tuple, STATE 7017),
    (sym_dictionary, STATE 7017), (sym_struct_literal, STATE 7017),
    (sym_list_comprehension, STATE 7017), (sym_dictionary_comprehension, STATE 7017),
    (sym_set_comprehension, STATE 7017), (sym_generator_expression, STATE 7017),
    (sym_parenthesized_expression, STATE 7017), (sym_conditional_expression, STATE 7969),
    (sym_concatenated_string, STATE 7017), (sym_string, STATE 6751), (sym_await, STATE 7017),
    (aux_sym_module_repeat1, STATE 927), (aux_sym_decorated_definition_repeat1, STATE 3670),
    (sym_identifier, ACTIONS 9), (anon_sym_import, ACTIONS 11), (anon_sym_from, ACTIONS 13),
    (anon_sym_LPAREN, ACTIONS 15), (anon_sym_STAR, ACTIONS 17), (anon_sym_print, ACTIONS 19),
    (anon_sym_comptime, ACTIONS 99), (anon_sym_assert, ACTIONS 23),
    (anon_sym___comptime_assert, ACTIONS 25), (anon_sym_return, ACTIONS 27),
    (anon_sym_del, ACTIONS 29), (anon_sym_raise, ACTIONS 31), (anon_sym_pass, ACTIONS 33),
    (anon_sym_break, ACTIONS 35), (anon_sym_continue, ACTIONS 37),
    (anon_sym___extension, ACTIONS 101), (anon_sym___mlir_region, ACTIONS 103),
    (anon_sym_if, ACTIONS 105), (anon_sym_match, ACTIONS 107), (anon_sym_async, ACTIONS 109),
    (anon_sym_for, ACTIONS 111), (anon_sym_while, ACTIONS 113), (anon_sym_try, ACTIONS 115),
    (anon_sym_with, ACTIONS 117), (anon_sym_def, ACTIONS 119), (anon_sym_fn, ACTIONS 119),
    (anon_sym_LBRACK, ACTIONS 59), (anon_sym_LBRACE, ACTIONS 61), (anon_sym_global, ACTIONS 63),
    (anon_sym_nonlocal, ACTIONS 65), (anon_sym_exec, ACTIONS 67), (anon_sym_type, ACTIONS 69),
    (anon_sym_class, ACTIONS 121), (anon_sym_struct, ACTIONS 121), (anon_sym_mut, ACTIONS 73),
    (anon_sym_out, ACTIONS 73), (anon_sym_trait, ACTIONS 123), (anon_sym_AT, ACTIONS 77),
    (anon_sym_DASH, ACTIONS 79), (anon_sym_PLUS, ACTIONS 79), (anon_sym_ref, ACTIONS 81),
    (anon_sym_var, ACTIONS 81), (anon_sym_not, ACTIONS 83), (anon_sym_TILDE, ACTIONS 79),
    (anon_sym_lambda, ACTIONS 85), (anon_sym_yield, ACTIONS 87), (sym_ellipsis, ACTIONS 89),
    (anon_sym___mlir_type, ACTIONS 91), (sym_integer, ACTIONS 93), (sym_float, ACTIONS 89),
    (anon_sym_await, ACTIONS 95), (sym_true, ACTIONS 93), (sym_false, ACTIONS 93),
    (sym_none, ACTIONS 93), (sym_comment, ACTIONS 3), (sym_line_continuation, ACTIONS 3),
    (sym__dedent, ACTIONS 125), (sym_string_start, ACTIONS 97)]"

definition parse_table_684 :: "(nat \<times> nat) list" where "parse_table_684 = [
    (sym__statement, STATE 927), (sym__simple_statements, STATE 927),
    (sym_import_statement, STATE 11814), (sym_future_import_statement, STATE 11814),
    (sym_import_from_statement, STATE 11814), (sym_print_statement, STATE 11814),
    (sym_assert_statement, STATE 11814), (sym_comptime_assert_statement, STATE 11814),
    (sym_expression_statement, STATE 11814), (sym_tuple_expression, STATE 12425),
    (sym_named_expression, STATE 7969), (sym__named_expression_lhs, STATE 12752),
    (sym_return_statement, STATE 11814), (sym_delete_statement, STATE 11814),
    (sym_raise_statement, STATE 11814), (sym_pass_statement, STATE 11814),
    (sym_break_statement, STATE 11814), (sym_continue_statement, STATE 11814),
    (sym_extension_definition, STATE 927), (sym_mlir_region, STATE 927),
    (sym_comptime_statement, STATE 927), (sym_if_statement, STATE 927),
    (sym_match_statement, STATE 927), (sym_for_statement, STATE 927),
    (sym_while_statement, STATE 927), (sym_try_statement, STATE 927),
    (sym_with_statement, STATE 927), (sym_function_definition, STATE 927),
    (sym_global_statement, STATE 11814), (sym_nonlocal_statement, STATE 11814),
    (sym_exec_statement, STATE 11814), (sym_type_alias_statement, STATE 11814),
    (sym_parameterized_alias_statement, STATE 11814), (sym_class_definition, STATE 927),
    (sym_trait_definition, STATE 927), (sym_decorated_definition, STATE 927),
    (sym_decorator, STATE 3670), (sym_block, STATE 5996), (sym_pattern, STATE 8086),
    (sym_tuple_pattern, STATE 8101), (sym_list_pattern, STATE 8101),
    (sym_list_splat_pattern, STATE 6819), (sym_as_pattern, STATE 7969),
    (sym_expression, STATE 9883), (sym_primary_expression, STATE 7326),
    (sym_comptime_expression, STATE 7017), (sym_transfer_expression, STATE 7017),
    (sym_not_operator, STATE 7969), (sym_boolean_operator, STATE 7969),
    (sym_binary_operator, STATE 7017), (sym_unary_operator, STATE 7017),
    (sym_comparison_operator, STATE 7969), (sym_lambda, STATE 7969),
    (sym_assignment, STATE 12425), (sym_augmented_assignment, STATE 12425),
    (sym_pattern_list, STATE 8578), (sym_yield, STATE 12425), (sym_attribute, STATE 6836),
    (sym_subscript, STATE 6838), (sym_call, STATE 6845), (sym_mlir_type, STATE 7017),
    (sym_list, STATE 7017), (sym_set, STATE 7017), (sym_tuple, STATE 7017),
    (sym_dictionary, STATE 7017), (sym_struct_literal, STATE 7017),
    (sym_list_comprehension, STATE 7017), (sym_dictionary_comprehension, STATE 7017),
    (sym_set_comprehension, STATE 7017), (sym_generator_expression, STATE 7017),
    (sym_parenthesized_expression, STATE 7017), (sym_conditional_expression, STATE 7969),
    (sym_concatenated_string, STATE 7017), (sym_string, STATE 6751), (sym_await, STATE 7017),
    (aux_sym_module_repeat1, STATE 927), (aux_sym_decorated_definition_repeat1, STATE 3670),
    (sym_identifier, ACTIONS 9), (anon_sym_import, ACTIONS 11), (anon_sym_from, ACTIONS 13),
    (anon_sym_LPAREN, ACTIONS 15), (anon_sym_STAR, ACTIONS 17), (anon_sym_print, ACTIONS 19),
    (anon_sym_comptime, ACTIONS 99), (anon_sym_assert, ACTIONS 23),
    (anon_sym___comptime_assert, ACTIONS 25), (anon_sym_return, ACTIONS 27),
    (anon_sym_del, ACTIONS 29), (anon_sym_raise, ACTIONS 31), (anon_sym_pass, ACTIONS 33),
    (anon_sym_break, ACTIONS 35), (anon_sym_continue, ACTIONS 37),
    (anon_sym___extension, ACTIONS 101), (anon_sym___mlir_region, ACTIONS 103),
    (anon_sym_if, ACTIONS 105), (anon_sym_match, ACTIONS 107), (anon_sym_async, ACTIONS 109),
    (anon_sym_for, ACTIONS 111), (anon_sym_while, ACTIONS 113), (anon_sym_try, ACTIONS 115),
    (anon_sym_with, ACTIONS 117), (anon_sym_def, ACTIONS 119), (anon_sym_fn, ACTIONS 119),
    (anon_sym_LBRACK, ACTIONS 59), (anon_sym_LBRACE, ACTIONS 61), (anon_sym_global, ACTIONS 63),
    (anon_sym_nonlocal, ACTIONS 65), (anon_sym_exec, ACTIONS 67), (anon_sym_type, ACTIONS 69),
    (anon_sym_class, ACTIONS 121), (anon_sym_struct, ACTIONS 121), (anon_sym_mut, ACTIONS 73),
    (anon_sym_out, ACTIONS 73), (anon_sym_trait, ACTIONS 123), (anon_sym_AT, ACTIONS 77),
    (anon_sym_DASH, ACTIONS 79), (anon_sym_PLUS, ACTIONS 79), (anon_sym_ref, ACTIONS 81),
    (anon_sym_var, ACTIONS 81), (anon_sym_not, ACTIONS 83), (anon_sym_TILDE, ACTIONS 79),
    (anon_sym_lambda, ACTIONS 85), (anon_sym_yield, ACTIONS 87), (sym_ellipsis, ACTIONS 89),
    (anon_sym___mlir_type, ACTIONS 91), (sym_integer, ACTIONS 93), (sym_float, ACTIONS 89),
    (anon_sym_await, ACTIONS 95), (sym_true, ACTIONS 93), (sym_false, ACTIONS 93),
    (sym_none, ACTIONS 93), (sym_comment, ACTIONS 3), (sym_line_continuation, ACTIONS 3),
    (sym__dedent, ACTIONS 125), (sym_string_start, ACTIONS 97)]"

definition parse_table_685 :: "(nat \<times> nat) list" where "parse_table_685 = [
    (sym__statement, STATE 927), (sym__simple_statements, STATE 927),
    (sym_import_statement, STATE 11814), (sym_future_import_statement, STATE 11814),
    (sym_import_from_statement, STATE 11814), (sym_print_statement, STATE 11814),
    (sym_assert_statement, STATE 11814), (sym_comptime_assert_statement, STATE 11814),
    (sym_expression_statement, STATE 11814), (sym_tuple_expression, STATE 12425),
    (sym_named_expression, STATE 7969), (sym__named_expression_lhs, STATE 12752),
    (sym_return_statement, STATE 11814), (sym_delete_statement, STATE 11814),
    (sym_raise_statement, STATE 11814), (sym_pass_statement, STATE 11814),
    (sym_break_statement, STATE 11814), (sym_continue_statement, STATE 11814),
    (sym_extension_definition, STATE 927), (sym_mlir_region, STATE 927),
    (sym_comptime_statement, STATE 927), (sym_if_statement, STATE 927),
    (sym_match_statement, STATE 927), (sym_for_statement, STATE 927),
    (sym_while_statement, STATE 927), (sym_try_statement, STATE 927),
    (sym_with_statement, STATE 927), (sym_function_definition, STATE 927),
    (sym_global_statement, STATE 11814), (sym_nonlocal_statement, STATE 11814),
    (sym_exec_statement, STATE 11814), (sym_type_alias_statement, STATE 11814),
    (sym_parameterized_alias_statement, STATE 11814), (sym_class_definition, STATE 927),
    (sym_trait_definition, STATE 927), (sym_decorated_definition, STATE 927),
    (sym_decorator, STATE 3670), (sym_block, STATE 6005), (sym_pattern, STATE 8086),
    (sym_tuple_pattern, STATE 8101), (sym_list_pattern, STATE 8101),
    (sym_list_splat_pattern, STATE 6819), (sym_as_pattern, STATE 7969),
    (sym_expression, STATE 9883), (sym_primary_expression, STATE 7326),
    (sym_comptime_expression, STATE 7017), (sym_transfer_expression, STATE 7017),
    (sym_not_operator, STATE 7969), (sym_boolean_operator, STATE 7969),
    (sym_binary_operator, STATE 7017), (sym_unary_operator, STATE 7017),
    (sym_comparison_operator, STATE 7969), (sym_lambda, STATE 7969),
    (sym_assignment, STATE 12425), (sym_augmented_assignment, STATE 12425),
    (sym_pattern_list, STATE 8578), (sym_yield, STATE 12425), (sym_attribute, STATE 6836),
    (sym_subscript, STATE 6838), (sym_call, STATE 6845), (sym_mlir_type, STATE 7017),
    (sym_list, STATE 7017), (sym_set, STATE 7017), (sym_tuple, STATE 7017),
    (sym_dictionary, STATE 7017), (sym_struct_literal, STATE 7017),
    (sym_list_comprehension, STATE 7017), (sym_dictionary_comprehension, STATE 7017),
    (sym_set_comprehension, STATE 7017), (sym_generator_expression, STATE 7017),
    (sym_parenthesized_expression, STATE 7017), (sym_conditional_expression, STATE 7969),
    (sym_concatenated_string, STATE 7017), (sym_string, STATE 6751), (sym_await, STATE 7017),
    (aux_sym_module_repeat1, STATE 927), (aux_sym_decorated_definition_repeat1, STATE 3670),
    (sym_identifier, ACTIONS 9), (anon_sym_import, ACTIONS 11), (anon_sym_from, ACTIONS 13),
    (anon_sym_LPAREN, ACTIONS 15), (anon_sym_STAR, ACTIONS 17), (anon_sym_print, ACTIONS 19),
    (anon_sym_comptime, ACTIONS 99), (anon_sym_assert, ACTIONS 23),
    (anon_sym___comptime_assert, ACTIONS 25), (anon_sym_return, ACTIONS 27),
    (anon_sym_del, ACTIONS 29), (anon_sym_raise, ACTIONS 31), (anon_sym_pass, ACTIONS 33),
    (anon_sym_break, ACTIONS 35), (anon_sym_continue, ACTIONS 37),
    (anon_sym___extension, ACTIONS 101), (anon_sym___mlir_region, ACTIONS 103),
    (anon_sym_if, ACTIONS 105), (anon_sym_match, ACTIONS 107), (anon_sym_async, ACTIONS 109),
    (anon_sym_for, ACTIONS 111), (anon_sym_while, ACTIONS 113), (anon_sym_try, ACTIONS 115),
    (anon_sym_with, ACTIONS 117), (anon_sym_def, ACTIONS 119), (anon_sym_fn, ACTIONS 119),
    (anon_sym_LBRACK, ACTIONS 59), (anon_sym_LBRACE, ACTIONS 61), (anon_sym_global, ACTIONS 63),
    (anon_sym_nonlocal, ACTIONS 65), (anon_sym_exec, ACTIONS 67), (anon_sym_type, ACTIONS 69),
    (anon_sym_class, ACTIONS 121), (anon_sym_struct, ACTIONS 121), (anon_sym_mut, ACTIONS 73),
    (anon_sym_out, ACTIONS 73), (anon_sym_trait, ACTIONS 123), (anon_sym_AT, ACTIONS 77),
    (anon_sym_DASH, ACTIONS 79), (anon_sym_PLUS, ACTIONS 79), (anon_sym_ref, ACTIONS 81),
    (anon_sym_var, ACTIONS 81), (anon_sym_not, ACTIONS 83), (anon_sym_TILDE, ACTIONS 79),
    (anon_sym_lambda, ACTIONS 85), (anon_sym_yield, ACTIONS 87), (sym_ellipsis, ACTIONS 89),
    (anon_sym___mlir_type, ACTIONS 91), (sym_integer, ACTIONS 93), (sym_float, ACTIONS 89),
    (anon_sym_await, ACTIONS 95), (sym_true, ACTIONS 93), (sym_false, ACTIONS 93),
    (sym_none, ACTIONS 93), (sym_comment, ACTIONS 3), (sym_line_continuation, ACTIONS 3),
    (sym__dedent, ACTIONS 125), (sym_string_start, ACTIONS 97)]"

definition parse_table_686 :: "(nat \<times> nat) list" where "parse_table_686 = [
    (sym__statement, STATE 927), (sym__simple_statements, STATE 927),
    (sym_import_statement, STATE 11814), (sym_future_import_statement, STATE 11814),
    (sym_import_from_statement, STATE 11814), (sym_print_statement, STATE 11814),
    (sym_assert_statement, STATE 11814), (sym_comptime_assert_statement, STATE 11814),
    (sym_expression_statement, STATE 11814), (sym_tuple_expression, STATE 12425),
    (sym_named_expression, STATE 7969), (sym__named_expression_lhs, STATE 12752),
    (sym_return_statement, STATE 11814), (sym_delete_statement, STATE 11814),
    (sym_raise_statement, STATE 11814), (sym_pass_statement, STATE 11814),
    (sym_break_statement, STATE 11814), (sym_continue_statement, STATE 11814),
    (sym_extension_definition, STATE 927), (sym_mlir_region, STATE 927),
    (sym_comptime_statement, STATE 927), (sym_if_statement, STATE 927),
    (sym_match_statement, STATE 927), (sym_for_statement, STATE 927),
    (sym_while_statement, STATE 927), (sym_try_statement, STATE 927),
    (sym_with_statement, STATE 927), (sym_function_definition, STATE 927),
    (sym_global_statement, STATE 11814), (sym_nonlocal_statement, STATE 11814),
    (sym_exec_statement, STATE 11814), (sym_type_alias_statement, STATE 11814),
    (sym_parameterized_alias_statement, STATE 11814), (sym_class_definition, STATE 927),
    (sym_trait_definition, STATE 927), (sym_decorated_definition, STATE 927),
    (sym_decorator, STATE 3670), (sym_block, STATE 6010), (sym_pattern, STATE 8086),
    (sym_tuple_pattern, STATE 8101), (sym_list_pattern, STATE 8101),
    (sym_list_splat_pattern, STATE 6819), (sym_as_pattern, STATE 7969),
    (sym_expression, STATE 9883), (sym_primary_expression, STATE 7326),
    (sym_comptime_expression, STATE 7017), (sym_transfer_expression, STATE 7017),
    (sym_not_operator, STATE 7969), (sym_boolean_operator, STATE 7969),
    (sym_binary_operator, STATE 7017), (sym_unary_operator, STATE 7017),
    (sym_comparison_operator, STATE 7969), (sym_lambda, STATE 7969),
    (sym_assignment, STATE 12425), (sym_augmented_assignment, STATE 12425),
    (sym_pattern_list, STATE 8578), (sym_yield, STATE 12425), (sym_attribute, STATE 6836),
    (sym_subscript, STATE 6838), (sym_call, STATE 6845), (sym_mlir_type, STATE 7017),
    (sym_list, STATE 7017), (sym_set, STATE 7017), (sym_tuple, STATE 7017),
    (sym_dictionary, STATE 7017), (sym_struct_literal, STATE 7017),
    (sym_list_comprehension, STATE 7017), (sym_dictionary_comprehension, STATE 7017),
    (sym_set_comprehension, STATE 7017), (sym_generator_expression, STATE 7017),
    (sym_parenthesized_expression, STATE 7017), (sym_conditional_expression, STATE 7969),
    (sym_concatenated_string, STATE 7017), (sym_string, STATE 6751), (sym_await, STATE 7017),
    (aux_sym_module_repeat1, STATE 927), (aux_sym_decorated_definition_repeat1, STATE 3670),
    (sym_identifier, ACTIONS 9), (anon_sym_import, ACTIONS 11), (anon_sym_from, ACTIONS 13),
    (anon_sym_LPAREN, ACTIONS 15), (anon_sym_STAR, ACTIONS 17), (anon_sym_print, ACTIONS 19),
    (anon_sym_comptime, ACTIONS 99), (anon_sym_assert, ACTIONS 23),
    (anon_sym___comptime_assert, ACTIONS 25), (anon_sym_return, ACTIONS 27),
    (anon_sym_del, ACTIONS 29), (anon_sym_raise, ACTIONS 31), (anon_sym_pass, ACTIONS 33),
    (anon_sym_break, ACTIONS 35), (anon_sym_continue, ACTIONS 37),
    (anon_sym___extension, ACTIONS 101), (anon_sym___mlir_region, ACTIONS 103),
    (anon_sym_if, ACTIONS 105), (anon_sym_match, ACTIONS 107), (anon_sym_async, ACTIONS 109),
    (anon_sym_for, ACTIONS 111), (anon_sym_while, ACTIONS 113), (anon_sym_try, ACTIONS 115),
    (anon_sym_with, ACTIONS 117), (anon_sym_def, ACTIONS 119), (anon_sym_fn, ACTIONS 119),
    (anon_sym_LBRACK, ACTIONS 59), (anon_sym_LBRACE, ACTIONS 61), (anon_sym_global, ACTIONS 63),
    (anon_sym_nonlocal, ACTIONS 65), (anon_sym_exec, ACTIONS 67), (anon_sym_type, ACTIONS 69),
    (anon_sym_class, ACTIONS 121), (anon_sym_struct, ACTIONS 121), (anon_sym_mut, ACTIONS 73),
    (anon_sym_out, ACTIONS 73), (anon_sym_trait, ACTIONS 123), (anon_sym_AT, ACTIONS 77),
    (anon_sym_DASH, ACTIONS 79), (anon_sym_PLUS, ACTIONS 79), (anon_sym_ref, ACTIONS 81),
    (anon_sym_var, ACTIONS 81), (anon_sym_not, ACTIONS 83), (anon_sym_TILDE, ACTIONS 79),
    (anon_sym_lambda, ACTIONS 85), (anon_sym_yield, ACTIONS 87), (sym_ellipsis, ACTIONS 89),
    (anon_sym___mlir_type, ACTIONS 91), (sym_integer, ACTIONS 93), (sym_float, ACTIONS 89),
    (anon_sym_await, ACTIONS 95), (sym_true, ACTIONS 93), (sym_false, ACTIONS 93),
    (sym_none, ACTIONS 93), (sym_comment, ACTIONS 3), (sym_line_continuation, ACTIONS 3),
    (sym__dedent, ACTIONS 125), (sym_string_start, ACTIONS 97)]"

definition parse_table_687 :: "(nat \<times> nat) list" where "parse_table_687 = [
    (sym__statement, STATE 927), (sym__simple_statements, STATE 927),
    (sym_import_statement, STATE 11814), (sym_future_import_statement, STATE 11814),
    (sym_import_from_statement, STATE 11814), (sym_print_statement, STATE 11814),
    (sym_assert_statement, STATE 11814), (sym_comptime_assert_statement, STATE 11814),
    (sym_expression_statement, STATE 11814), (sym_tuple_expression, STATE 12425),
    (sym_named_expression, STATE 7969), (sym__named_expression_lhs, STATE 12752),
    (sym_return_statement, STATE 11814), (sym_delete_statement, STATE 11814),
    (sym_raise_statement, STATE 11814), (sym_pass_statement, STATE 11814),
    (sym_break_statement, STATE 11814), (sym_continue_statement, STATE 11814),
    (sym_extension_definition, STATE 927), (sym_mlir_region, STATE 927),
    (sym_comptime_statement, STATE 927), (sym_if_statement, STATE 927),
    (sym_match_statement, STATE 927), (sym_for_statement, STATE 927),
    (sym_while_statement, STATE 927), (sym_try_statement, STATE 927),
    (sym_with_statement, STATE 927), (sym_function_definition, STATE 927),
    (sym_global_statement, STATE 11814), (sym_nonlocal_statement, STATE 11814),
    (sym_exec_statement, STATE 11814), (sym_type_alias_statement, STATE 11814),
    (sym_parameterized_alias_statement, STATE 11814), (sym_class_definition, STATE 927),
    (sym_trait_definition, STATE 927), (sym_decorated_definition, STATE 927),
    (sym_decorator, STATE 3670), (sym_block, STATE 6014), (sym_pattern, STATE 8086),
    (sym_tuple_pattern, STATE 8101), (sym_list_pattern, STATE 8101),
    (sym_list_splat_pattern, STATE 6819), (sym_as_pattern, STATE 7969),
    (sym_expression, STATE 9883), (sym_primary_expression, STATE 7326),
    (sym_comptime_expression, STATE 7017), (sym_transfer_expression, STATE 7017),
    (sym_not_operator, STATE 7969), (sym_boolean_operator, STATE 7969),
    (sym_binary_operator, STATE 7017), (sym_unary_operator, STATE 7017),
    (sym_comparison_operator, STATE 7969), (sym_lambda, STATE 7969),
    (sym_assignment, STATE 12425), (sym_augmented_assignment, STATE 12425),
    (sym_pattern_list, STATE 8578), (sym_yield, STATE 12425), (sym_attribute, STATE 6836),
    (sym_subscript, STATE 6838), (sym_call, STATE 6845), (sym_mlir_type, STATE 7017),
    (sym_list, STATE 7017), (sym_set, STATE 7017), (sym_tuple, STATE 7017),
    (sym_dictionary, STATE 7017), (sym_struct_literal, STATE 7017),
    (sym_list_comprehension, STATE 7017), (sym_dictionary_comprehension, STATE 7017),
    (sym_set_comprehension, STATE 7017), (sym_generator_expression, STATE 7017),
    (sym_parenthesized_expression, STATE 7017), (sym_conditional_expression, STATE 7969),
    (sym_concatenated_string, STATE 7017), (sym_string, STATE 6751), (sym_await, STATE 7017),
    (aux_sym_module_repeat1, STATE 927), (aux_sym_decorated_definition_repeat1, STATE 3670),
    (sym_identifier, ACTIONS 9), (anon_sym_import, ACTIONS 11), (anon_sym_from, ACTIONS 13),
    (anon_sym_LPAREN, ACTIONS 15), (anon_sym_STAR, ACTIONS 17), (anon_sym_print, ACTIONS 19),
    (anon_sym_comptime, ACTIONS 99), (anon_sym_assert, ACTIONS 23),
    (anon_sym___comptime_assert, ACTIONS 25), (anon_sym_return, ACTIONS 27),
    (anon_sym_del, ACTIONS 29), (anon_sym_raise, ACTIONS 31), (anon_sym_pass, ACTIONS 33),
    (anon_sym_break, ACTIONS 35), (anon_sym_continue, ACTIONS 37),
    (anon_sym___extension, ACTIONS 101), (anon_sym___mlir_region, ACTIONS 103),
    (anon_sym_if, ACTIONS 105), (anon_sym_match, ACTIONS 107), (anon_sym_async, ACTIONS 109),
    (anon_sym_for, ACTIONS 111), (anon_sym_while, ACTIONS 113), (anon_sym_try, ACTIONS 115),
    (anon_sym_with, ACTIONS 117), (anon_sym_def, ACTIONS 119), (anon_sym_fn, ACTIONS 119),
    (anon_sym_LBRACK, ACTIONS 59), (anon_sym_LBRACE, ACTIONS 61), (anon_sym_global, ACTIONS 63),
    (anon_sym_nonlocal, ACTIONS 65), (anon_sym_exec, ACTIONS 67), (anon_sym_type, ACTIONS 69),
    (anon_sym_class, ACTIONS 121), (anon_sym_struct, ACTIONS 121), (anon_sym_mut, ACTIONS 73),
    (anon_sym_out, ACTIONS 73), (anon_sym_trait, ACTIONS 123), (anon_sym_AT, ACTIONS 77),
    (anon_sym_DASH, ACTIONS 79), (anon_sym_PLUS, ACTIONS 79), (anon_sym_ref, ACTIONS 81),
    (anon_sym_var, ACTIONS 81), (anon_sym_not, ACTIONS 83), (anon_sym_TILDE, ACTIONS 79),
    (anon_sym_lambda, ACTIONS 85), (anon_sym_yield, ACTIONS 87), (sym_ellipsis, ACTIONS 89),
    (anon_sym___mlir_type, ACTIONS 91), (sym_integer, ACTIONS 93), (sym_float, ACTIONS 89),
    (anon_sym_await, ACTIONS 95), (sym_true, ACTIONS 93), (sym_false, ACTIONS 93),
    (sym_none, ACTIONS 93), (sym_comment, ACTIONS 3), (sym_line_continuation, ACTIONS 3),
    (sym__dedent, ACTIONS 125), (sym_string_start, ACTIONS 97)]"

definition parse_table_688 :: "(nat \<times> nat) list" where "parse_table_688 = [
    (sym__statement, STATE 927), (sym__simple_statements, STATE 927),
    (sym_import_statement, STATE 11814), (sym_future_import_statement, STATE 11814),
    (sym_import_from_statement, STATE 11814), (sym_print_statement, STATE 11814),
    (sym_assert_statement, STATE 11814), (sym_comptime_assert_statement, STATE 11814),
    (sym_expression_statement, STATE 11814), (sym_tuple_expression, STATE 12425),
    (sym_named_expression, STATE 7969), (sym__named_expression_lhs, STATE 12752),
    (sym_return_statement, STATE 11814), (sym_delete_statement, STATE 11814),
    (sym_raise_statement, STATE 11814), (sym_pass_statement, STATE 11814),
    (sym_break_statement, STATE 11814), (sym_continue_statement, STATE 11814),
    (sym_extension_definition, STATE 927), (sym_mlir_region, STATE 927),
    (sym_comptime_statement, STATE 927), (sym_if_statement, STATE 927),
    (sym_match_statement, STATE 927), (sym_for_statement, STATE 927),
    (sym_while_statement, STATE 927), (sym_try_statement, STATE 927),
    (sym_with_statement, STATE 927), (sym_function_definition, STATE 927),
    (sym_global_statement, STATE 11814), (sym_nonlocal_statement, STATE 11814),
    (sym_exec_statement, STATE 11814), (sym_type_alias_statement, STATE 11814),
    (sym_parameterized_alias_statement, STATE 11814), (sym_class_definition, STATE 927),
    (sym_trait_definition, STATE 927), (sym_decorated_definition, STATE 927),
    (sym_decorator, STATE 3670), (sym_block, STATE 6020), (sym_pattern, STATE 8086),
    (sym_tuple_pattern, STATE 8101), (sym_list_pattern, STATE 8101),
    (sym_list_splat_pattern, STATE 6819), (sym_as_pattern, STATE 7969),
    (sym_expression, STATE 9883), (sym_primary_expression, STATE 7326),
    (sym_comptime_expression, STATE 7017), (sym_transfer_expression, STATE 7017),
    (sym_not_operator, STATE 7969), (sym_boolean_operator, STATE 7969),
    (sym_binary_operator, STATE 7017), (sym_unary_operator, STATE 7017),
    (sym_comparison_operator, STATE 7969), (sym_lambda, STATE 7969),
    (sym_assignment, STATE 12425), (sym_augmented_assignment, STATE 12425),
    (sym_pattern_list, STATE 8578), (sym_yield, STATE 12425), (sym_attribute, STATE 6836),
    (sym_subscript, STATE 6838), (sym_call, STATE 6845), (sym_mlir_type, STATE 7017),
    (sym_list, STATE 7017), (sym_set, STATE 7017), (sym_tuple, STATE 7017),
    (sym_dictionary, STATE 7017), (sym_struct_literal, STATE 7017),
    (sym_list_comprehension, STATE 7017), (sym_dictionary_comprehension, STATE 7017),
    (sym_set_comprehension, STATE 7017), (sym_generator_expression, STATE 7017),
    (sym_parenthesized_expression, STATE 7017), (sym_conditional_expression, STATE 7969),
    (sym_concatenated_string, STATE 7017), (sym_string, STATE 6751), (sym_await, STATE 7017),
    (aux_sym_module_repeat1, STATE 927), (aux_sym_decorated_definition_repeat1, STATE 3670),
    (sym_identifier, ACTIONS 9), (anon_sym_import, ACTIONS 11), (anon_sym_from, ACTIONS 13),
    (anon_sym_LPAREN, ACTIONS 15), (anon_sym_STAR, ACTIONS 17), (anon_sym_print, ACTIONS 19),
    (anon_sym_comptime, ACTIONS 99), (anon_sym_assert, ACTIONS 23),
    (anon_sym___comptime_assert, ACTIONS 25), (anon_sym_return, ACTIONS 27),
    (anon_sym_del, ACTIONS 29), (anon_sym_raise, ACTIONS 31), (anon_sym_pass, ACTIONS 33),
    (anon_sym_break, ACTIONS 35), (anon_sym_continue, ACTIONS 37),
    (anon_sym___extension, ACTIONS 101), (anon_sym___mlir_region, ACTIONS 103),
    (anon_sym_if, ACTIONS 105), (anon_sym_match, ACTIONS 107), (anon_sym_async, ACTIONS 109),
    (anon_sym_for, ACTIONS 111), (anon_sym_while, ACTIONS 113), (anon_sym_try, ACTIONS 115),
    (anon_sym_with, ACTIONS 117), (anon_sym_def, ACTIONS 119), (anon_sym_fn, ACTIONS 119),
    (anon_sym_LBRACK, ACTIONS 59), (anon_sym_LBRACE, ACTIONS 61), (anon_sym_global, ACTIONS 63),
    (anon_sym_nonlocal, ACTIONS 65), (anon_sym_exec, ACTIONS 67), (anon_sym_type, ACTIONS 69),
    (anon_sym_class, ACTIONS 121), (anon_sym_struct, ACTIONS 121), (anon_sym_mut, ACTIONS 73),
    (anon_sym_out, ACTIONS 73), (anon_sym_trait, ACTIONS 123), (anon_sym_AT, ACTIONS 77),
    (anon_sym_DASH, ACTIONS 79), (anon_sym_PLUS, ACTIONS 79), (anon_sym_ref, ACTIONS 81),
    (anon_sym_var, ACTIONS 81), (anon_sym_not, ACTIONS 83), (anon_sym_TILDE, ACTIONS 79),
    (anon_sym_lambda, ACTIONS 85), (anon_sym_yield, ACTIONS 87), (sym_ellipsis, ACTIONS 89),
    (anon_sym___mlir_type, ACTIONS 91), (sym_integer, ACTIONS 93), (sym_float, ACTIONS 89),
    (anon_sym_await, ACTIONS 95), (sym_true, ACTIONS 93), (sym_false, ACTIONS 93),
    (sym_none, ACTIONS 93), (sym_comment, ACTIONS 3), (sym_line_continuation, ACTIONS 3),
    (sym__dedent, ACTIONS 125), (sym_string_start, ACTIONS 97)]"

definition parse_table_689 :: "(nat \<times> nat) list" where "parse_table_689 = [
    (sym__statement, STATE 927), (sym__simple_statements, STATE 927),
    (sym_import_statement, STATE 11814), (sym_future_import_statement, STATE 11814),
    (sym_import_from_statement, STATE 11814), (sym_print_statement, STATE 11814),
    (sym_assert_statement, STATE 11814), (sym_comptime_assert_statement, STATE 11814),
    (sym_expression_statement, STATE 11814), (sym_tuple_expression, STATE 12425),
    (sym_named_expression, STATE 7969), (sym__named_expression_lhs, STATE 12752),
    (sym_return_statement, STATE 11814), (sym_delete_statement, STATE 11814),
    (sym_raise_statement, STATE 11814), (sym_pass_statement, STATE 11814),
    (sym_break_statement, STATE 11814), (sym_continue_statement, STATE 11814),
    (sym_extension_definition, STATE 927), (sym_mlir_region, STATE 927),
    (sym_comptime_statement, STATE 927), (sym_if_statement, STATE 927),
    (sym_match_statement, STATE 927), (sym_for_statement, STATE 927),
    (sym_while_statement, STATE 927), (sym_try_statement, STATE 927),
    (sym_with_statement, STATE 927), (sym_function_definition, STATE 927),
    (sym_global_statement, STATE 11814), (sym_nonlocal_statement, STATE 11814),
    (sym_exec_statement, STATE 11814), (sym_type_alias_statement, STATE 11814),
    (sym_parameterized_alias_statement, STATE 11814), (sym_class_definition, STATE 927),
    (sym_trait_definition, STATE 927), (sym_decorated_definition, STATE 927),
    (sym_decorator, STATE 3670), (sym_block, STATE 6022), (sym_pattern, STATE 8086),
    (sym_tuple_pattern, STATE 8101), (sym_list_pattern, STATE 8101),
    (sym_list_splat_pattern, STATE 6819), (sym_as_pattern, STATE 7969),
    (sym_expression, STATE 9883), (sym_primary_expression, STATE 7326),
    (sym_comptime_expression, STATE 7017), (sym_transfer_expression, STATE 7017),
    (sym_not_operator, STATE 7969), (sym_boolean_operator, STATE 7969),
    (sym_binary_operator, STATE 7017), (sym_unary_operator, STATE 7017),
    (sym_comparison_operator, STATE 7969), (sym_lambda, STATE 7969),
    (sym_assignment, STATE 12425), (sym_augmented_assignment, STATE 12425),
    (sym_pattern_list, STATE 8578), (sym_yield, STATE 12425), (sym_attribute, STATE 6836),
    (sym_subscript, STATE 6838), (sym_call, STATE 6845), (sym_mlir_type, STATE 7017),
    (sym_list, STATE 7017), (sym_set, STATE 7017), (sym_tuple, STATE 7017),
    (sym_dictionary, STATE 7017), (sym_struct_literal, STATE 7017),
    (sym_list_comprehension, STATE 7017), (sym_dictionary_comprehension, STATE 7017),
    (sym_set_comprehension, STATE 7017), (sym_generator_expression, STATE 7017),
    (sym_parenthesized_expression, STATE 7017), (sym_conditional_expression, STATE 7969),
    (sym_concatenated_string, STATE 7017), (sym_string, STATE 6751), (sym_await, STATE 7017),
    (aux_sym_module_repeat1, STATE 927), (aux_sym_decorated_definition_repeat1, STATE 3670),
    (sym_identifier, ACTIONS 9), (anon_sym_import, ACTIONS 11), (anon_sym_from, ACTIONS 13),
    (anon_sym_LPAREN, ACTIONS 15), (anon_sym_STAR, ACTIONS 17), (anon_sym_print, ACTIONS 19),
    (anon_sym_comptime, ACTIONS 99), (anon_sym_assert, ACTIONS 23),
    (anon_sym___comptime_assert, ACTIONS 25), (anon_sym_return, ACTIONS 27),
    (anon_sym_del, ACTIONS 29), (anon_sym_raise, ACTIONS 31), (anon_sym_pass, ACTIONS 33),
    (anon_sym_break, ACTIONS 35), (anon_sym_continue, ACTIONS 37),
    (anon_sym___extension, ACTIONS 101), (anon_sym___mlir_region, ACTIONS 103),
    (anon_sym_if, ACTIONS 105), (anon_sym_match, ACTIONS 107), (anon_sym_async, ACTIONS 109),
    (anon_sym_for, ACTIONS 111), (anon_sym_while, ACTIONS 113), (anon_sym_try, ACTIONS 115),
    (anon_sym_with, ACTIONS 117), (anon_sym_def, ACTIONS 119), (anon_sym_fn, ACTIONS 119),
    (anon_sym_LBRACK, ACTIONS 59), (anon_sym_LBRACE, ACTIONS 61), (anon_sym_global, ACTIONS 63),
    (anon_sym_nonlocal, ACTIONS 65), (anon_sym_exec, ACTIONS 67), (anon_sym_type, ACTIONS 69),
    (anon_sym_class, ACTIONS 121), (anon_sym_struct, ACTIONS 121), (anon_sym_mut, ACTIONS 73),
    (anon_sym_out, ACTIONS 73), (anon_sym_trait, ACTIONS 123), (anon_sym_AT, ACTIONS 77),
    (anon_sym_DASH, ACTIONS 79), (anon_sym_PLUS, ACTIONS 79), (anon_sym_ref, ACTIONS 81),
    (anon_sym_var, ACTIONS 81), (anon_sym_not, ACTIONS 83), (anon_sym_TILDE, ACTIONS 79),
    (anon_sym_lambda, ACTIONS 85), (anon_sym_yield, ACTIONS 87), (sym_ellipsis, ACTIONS 89),
    (anon_sym___mlir_type, ACTIONS 91), (sym_integer, ACTIONS 93), (sym_float, ACTIONS 89),
    (anon_sym_await, ACTIONS 95), (sym_true, ACTIONS 93), (sym_false, ACTIONS 93),
    (sym_none, ACTIONS 93), (sym_comment, ACTIONS 3), (sym_line_continuation, ACTIONS 3),
    (sym__dedent, ACTIONS 125), (sym_string_start, ACTIONS 97)]"

definition parse_table_690 :: "(nat \<times> nat) list" where "parse_table_690 = [
    (sym__statement, STATE 927), (sym__simple_statements, STATE 927),
    (sym_import_statement, STATE 11814), (sym_future_import_statement, STATE 11814),
    (sym_import_from_statement, STATE 11814), (sym_print_statement, STATE 11814),
    (sym_assert_statement, STATE 11814), (sym_comptime_assert_statement, STATE 11814),
    (sym_expression_statement, STATE 11814), (sym_tuple_expression, STATE 12425),
    (sym_named_expression, STATE 7969), (sym__named_expression_lhs, STATE 12752),
    (sym_return_statement, STATE 11814), (sym_delete_statement, STATE 11814),
    (sym_raise_statement, STATE 11814), (sym_pass_statement, STATE 11814),
    (sym_break_statement, STATE 11814), (sym_continue_statement, STATE 11814),
    (sym_extension_definition, STATE 927), (sym_mlir_region, STATE 927),
    (sym_comptime_statement, STATE 927), (sym_if_statement, STATE 927),
    (sym_match_statement, STATE 927), (sym_for_statement, STATE 927),
    (sym_while_statement, STATE 927), (sym_try_statement, STATE 927),
    (sym_with_statement, STATE 927), (sym_function_definition, STATE 927),
    (sym_global_statement, STATE 11814), (sym_nonlocal_statement, STATE 11814),
    (sym_exec_statement, STATE 11814), (sym_type_alias_statement, STATE 11814),
    (sym_parameterized_alias_statement, STATE 11814), (sym_class_definition, STATE 927),
    (sym_trait_definition, STATE 927), (sym_decorated_definition, STATE 927),
    (sym_decorator, STATE 3670), (sym_block, STATE 6029), (sym_pattern, STATE 8086),
    (sym_tuple_pattern, STATE 8101), (sym_list_pattern, STATE 8101),
    (sym_list_splat_pattern, STATE 6819), (sym_as_pattern, STATE 7969),
    (sym_expression, STATE 9883), (sym_primary_expression, STATE 7326),
    (sym_comptime_expression, STATE 7017), (sym_transfer_expression, STATE 7017),
    (sym_not_operator, STATE 7969), (sym_boolean_operator, STATE 7969),
    (sym_binary_operator, STATE 7017), (sym_unary_operator, STATE 7017),
    (sym_comparison_operator, STATE 7969), (sym_lambda, STATE 7969),
    (sym_assignment, STATE 12425), (sym_augmented_assignment, STATE 12425),
    (sym_pattern_list, STATE 8578), (sym_yield, STATE 12425), (sym_attribute, STATE 6836),
    (sym_subscript, STATE 6838), (sym_call, STATE 6845), (sym_mlir_type, STATE 7017),
    (sym_list, STATE 7017), (sym_set, STATE 7017), (sym_tuple, STATE 7017),
    (sym_dictionary, STATE 7017), (sym_struct_literal, STATE 7017),
    (sym_list_comprehension, STATE 7017), (sym_dictionary_comprehension, STATE 7017),
    (sym_set_comprehension, STATE 7017), (sym_generator_expression, STATE 7017),
    (sym_parenthesized_expression, STATE 7017), (sym_conditional_expression, STATE 7969),
    (sym_concatenated_string, STATE 7017), (sym_string, STATE 6751), (sym_await, STATE 7017),
    (aux_sym_module_repeat1, STATE 927), (aux_sym_decorated_definition_repeat1, STATE 3670),
    (sym_identifier, ACTIONS 9), (anon_sym_import, ACTIONS 11), (anon_sym_from, ACTIONS 13),
    (anon_sym_LPAREN, ACTIONS 15), (anon_sym_STAR, ACTIONS 17), (anon_sym_print, ACTIONS 19),
    (anon_sym_comptime, ACTIONS 99), (anon_sym_assert, ACTIONS 23),
    (anon_sym___comptime_assert, ACTIONS 25), (anon_sym_return, ACTIONS 27),
    (anon_sym_del, ACTIONS 29), (anon_sym_raise, ACTIONS 31), (anon_sym_pass, ACTIONS 33),
    (anon_sym_break, ACTIONS 35), (anon_sym_continue, ACTIONS 37),
    (anon_sym___extension, ACTIONS 101), (anon_sym___mlir_region, ACTIONS 103),
    (anon_sym_if, ACTIONS 105), (anon_sym_match, ACTIONS 107), (anon_sym_async, ACTIONS 109),
    (anon_sym_for, ACTIONS 111), (anon_sym_while, ACTIONS 113), (anon_sym_try, ACTIONS 115),
    (anon_sym_with, ACTIONS 117), (anon_sym_def, ACTIONS 119), (anon_sym_fn, ACTIONS 119),
    (anon_sym_LBRACK, ACTIONS 59), (anon_sym_LBRACE, ACTIONS 61), (anon_sym_global, ACTIONS 63),
    (anon_sym_nonlocal, ACTIONS 65), (anon_sym_exec, ACTIONS 67), (anon_sym_type, ACTIONS 69),
    (anon_sym_class, ACTIONS 121), (anon_sym_struct, ACTIONS 121), (anon_sym_mut, ACTIONS 73),
    (anon_sym_out, ACTIONS 73), (anon_sym_trait, ACTIONS 123), (anon_sym_AT, ACTIONS 77),
    (anon_sym_DASH, ACTIONS 79), (anon_sym_PLUS, ACTIONS 79), (anon_sym_ref, ACTIONS 81),
    (anon_sym_var, ACTIONS 81), (anon_sym_not, ACTIONS 83), (anon_sym_TILDE, ACTIONS 79),
    (anon_sym_lambda, ACTIONS 85), (anon_sym_yield, ACTIONS 87), (sym_ellipsis, ACTIONS 89),
    (anon_sym___mlir_type, ACTIONS 91), (sym_integer, ACTIONS 93), (sym_float, ACTIONS 89),
    (anon_sym_await, ACTIONS 95), (sym_true, ACTIONS 93), (sym_false, ACTIONS 93),
    (sym_none, ACTIONS 93), (sym_comment, ACTIONS 3), (sym_line_continuation, ACTIONS 3),
    (sym__dedent, ACTIONS 125), (sym_string_start, ACTIONS 97)]"

definition parse_table_691 :: "(nat \<times> nat) list" where "parse_table_691 = [
    (sym__statement, STATE 927), (sym__simple_statements, STATE 927),
    (sym_import_statement, STATE 11814), (sym_future_import_statement, STATE 11814),
    (sym_import_from_statement, STATE 11814), (sym_print_statement, STATE 11814),
    (sym_assert_statement, STATE 11814), (sym_comptime_assert_statement, STATE 11814),
    (sym_expression_statement, STATE 11814), (sym_tuple_expression, STATE 12425),
    (sym_named_expression, STATE 7969), (sym__named_expression_lhs, STATE 12752),
    (sym_return_statement, STATE 11814), (sym_delete_statement, STATE 11814),
    (sym_raise_statement, STATE 11814), (sym_pass_statement, STATE 11814),
    (sym_break_statement, STATE 11814), (sym_continue_statement, STATE 11814),
    (sym_extension_definition, STATE 927), (sym_mlir_region, STATE 927),
    (sym_comptime_statement, STATE 927), (sym_if_statement, STATE 927),
    (sym_match_statement, STATE 927), (sym_for_statement, STATE 927),
    (sym_while_statement, STATE 927), (sym_try_statement, STATE 927),
    (sym_with_statement, STATE 927), (sym_function_definition, STATE 927),
    (sym_global_statement, STATE 11814), (sym_nonlocal_statement, STATE 11814),
    (sym_exec_statement, STATE 11814), (sym_type_alias_statement, STATE 11814),
    (sym_parameterized_alias_statement, STATE 11814), (sym_class_definition, STATE 927),
    (sym_trait_definition, STATE 927), (sym_decorated_definition, STATE 927),
    (sym_decorator, STATE 3670), (sym_block, STATE 6032), (sym_pattern, STATE 8086),
    (sym_tuple_pattern, STATE 8101), (sym_list_pattern, STATE 8101),
    (sym_list_splat_pattern, STATE 6819), (sym_as_pattern, STATE 7969),
    (sym_expression, STATE 9883), (sym_primary_expression, STATE 7326),
    (sym_comptime_expression, STATE 7017), (sym_transfer_expression, STATE 7017),
    (sym_not_operator, STATE 7969), (sym_boolean_operator, STATE 7969),
    (sym_binary_operator, STATE 7017), (sym_unary_operator, STATE 7017),
    (sym_comparison_operator, STATE 7969), (sym_lambda, STATE 7969),
    (sym_assignment, STATE 12425), (sym_augmented_assignment, STATE 12425),
    (sym_pattern_list, STATE 8578), (sym_yield, STATE 12425), (sym_attribute, STATE 6836),
    (sym_subscript, STATE 6838), (sym_call, STATE 6845), (sym_mlir_type, STATE 7017),
    (sym_list, STATE 7017), (sym_set, STATE 7017), (sym_tuple, STATE 7017),
    (sym_dictionary, STATE 7017), (sym_struct_literal, STATE 7017),
    (sym_list_comprehension, STATE 7017), (sym_dictionary_comprehension, STATE 7017),
    (sym_set_comprehension, STATE 7017), (sym_generator_expression, STATE 7017),
    (sym_parenthesized_expression, STATE 7017), (sym_conditional_expression, STATE 7969),
    (sym_concatenated_string, STATE 7017), (sym_string, STATE 6751), (sym_await, STATE 7017),
    (aux_sym_module_repeat1, STATE 927), (aux_sym_decorated_definition_repeat1, STATE 3670),
    (sym_identifier, ACTIONS 9), (anon_sym_import, ACTIONS 11), (anon_sym_from, ACTIONS 13),
    (anon_sym_LPAREN, ACTIONS 15), (anon_sym_STAR, ACTIONS 17), (anon_sym_print, ACTIONS 19),
    (anon_sym_comptime, ACTIONS 99), (anon_sym_assert, ACTIONS 23),
    (anon_sym___comptime_assert, ACTIONS 25), (anon_sym_return, ACTIONS 27),
    (anon_sym_del, ACTIONS 29), (anon_sym_raise, ACTIONS 31), (anon_sym_pass, ACTIONS 33),
    (anon_sym_break, ACTIONS 35), (anon_sym_continue, ACTIONS 37),
    (anon_sym___extension, ACTIONS 101), (anon_sym___mlir_region, ACTIONS 103),
    (anon_sym_if, ACTIONS 105), (anon_sym_match, ACTIONS 107), (anon_sym_async, ACTIONS 109),
    (anon_sym_for, ACTIONS 111), (anon_sym_while, ACTIONS 113), (anon_sym_try, ACTIONS 115),
    (anon_sym_with, ACTIONS 117), (anon_sym_def, ACTIONS 119), (anon_sym_fn, ACTIONS 119),
    (anon_sym_LBRACK, ACTIONS 59), (anon_sym_LBRACE, ACTIONS 61), (anon_sym_global, ACTIONS 63),
    (anon_sym_nonlocal, ACTIONS 65), (anon_sym_exec, ACTIONS 67), (anon_sym_type, ACTIONS 69),
    (anon_sym_class, ACTIONS 121), (anon_sym_struct, ACTIONS 121), (anon_sym_mut, ACTIONS 73),
    (anon_sym_out, ACTIONS 73), (anon_sym_trait, ACTIONS 123), (anon_sym_AT, ACTIONS 77),
    (anon_sym_DASH, ACTIONS 79), (anon_sym_PLUS, ACTIONS 79), (anon_sym_ref, ACTIONS 81),
    (anon_sym_var, ACTIONS 81), (anon_sym_not, ACTIONS 83), (anon_sym_TILDE, ACTIONS 79),
    (anon_sym_lambda, ACTIONS 85), (anon_sym_yield, ACTIONS 87), (sym_ellipsis, ACTIONS 89),
    (anon_sym___mlir_type, ACTIONS 91), (sym_integer, ACTIONS 93), (sym_float, ACTIONS 89),
    (anon_sym_await, ACTIONS 95), (sym_true, ACTIONS 93), (sym_false, ACTIONS 93),
    (sym_none, ACTIONS 93), (sym_comment, ACTIONS 3), (sym_line_continuation, ACTIONS 3),
    (sym__dedent, ACTIONS 125), (sym_string_start, ACTIONS 97)]"

definition parse_table_692 :: "(nat \<times> nat) list" where "parse_table_692 = [
    (sym__statement, STATE 927), (sym__simple_statements, STATE 927),
    (sym_import_statement, STATE 11814), (sym_future_import_statement, STATE 11814),
    (sym_import_from_statement, STATE 11814), (sym_print_statement, STATE 11814),
    (sym_assert_statement, STATE 11814), (sym_comptime_assert_statement, STATE 11814),
    (sym_expression_statement, STATE 11814), (sym_tuple_expression, STATE 12425),
    (sym_named_expression, STATE 7969), (sym__named_expression_lhs, STATE 12752),
    (sym_return_statement, STATE 11814), (sym_delete_statement, STATE 11814),
    (sym_raise_statement, STATE 11814), (sym_pass_statement, STATE 11814),
    (sym_break_statement, STATE 11814), (sym_continue_statement, STATE 11814),
    (sym_extension_definition, STATE 927), (sym_mlir_region, STATE 927),
    (sym_comptime_statement, STATE 927), (sym_if_statement, STATE 927),
    (sym_match_statement, STATE 927), (sym_for_statement, STATE 927),
    (sym_while_statement, STATE 927), (sym_try_statement, STATE 927),
    (sym_with_statement, STATE 927), (sym_function_definition, STATE 927),
    (sym_global_statement, STATE 11814), (sym_nonlocal_statement, STATE 11814),
    (sym_exec_statement, STATE 11814), (sym_type_alias_statement, STATE 11814),
    (sym_parameterized_alias_statement, STATE 11814), (sym_class_definition, STATE 927),
    (sym_trait_definition, STATE 927), (sym_decorated_definition, STATE 927),
    (sym_decorator, STATE 3670), (sym_block, STATE 6042), (sym_pattern, STATE 8086),
    (sym_tuple_pattern, STATE 8101), (sym_list_pattern, STATE 8101),
    (sym_list_splat_pattern, STATE 6819), (sym_as_pattern, STATE 7969),
    (sym_expression, STATE 9883), (sym_primary_expression, STATE 7326),
    (sym_comptime_expression, STATE 7017), (sym_transfer_expression, STATE 7017),
    (sym_not_operator, STATE 7969), (sym_boolean_operator, STATE 7969),
    (sym_binary_operator, STATE 7017), (sym_unary_operator, STATE 7017),
    (sym_comparison_operator, STATE 7969), (sym_lambda, STATE 7969),
    (sym_assignment, STATE 12425), (sym_augmented_assignment, STATE 12425),
    (sym_pattern_list, STATE 8578), (sym_yield, STATE 12425), (sym_attribute, STATE 6836),
    (sym_subscript, STATE 6838), (sym_call, STATE 6845), (sym_mlir_type, STATE 7017),
    (sym_list, STATE 7017), (sym_set, STATE 7017), (sym_tuple, STATE 7017),
    (sym_dictionary, STATE 7017), (sym_struct_literal, STATE 7017),
    (sym_list_comprehension, STATE 7017), (sym_dictionary_comprehension, STATE 7017),
    (sym_set_comprehension, STATE 7017), (sym_generator_expression, STATE 7017),
    (sym_parenthesized_expression, STATE 7017), (sym_conditional_expression, STATE 7969),
    (sym_concatenated_string, STATE 7017), (sym_string, STATE 6751), (sym_await, STATE 7017),
    (aux_sym_module_repeat1, STATE 927), (aux_sym_decorated_definition_repeat1, STATE 3670),
    (sym_identifier, ACTIONS 9), (anon_sym_import, ACTIONS 11), (anon_sym_from, ACTIONS 13),
    (anon_sym_LPAREN, ACTIONS 15), (anon_sym_STAR, ACTIONS 17), (anon_sym_print, ACTIONS 19),
    (anon_sym_comptime, ACTIONS 99), (anon_sym_assert, ACTIONS 23),
    (anon_sym___comptime_assert, ACTIONS 25), (anon_sym_return, ACTIONS 27),
    (anon_sym_del, ACTIONS 29), (anon_sym_raise, ACTIONS 31), (anon_sym_pass, ACTIONS 33),
    (anon_sym_break, ACTIONS 35), (anon_sym_continue, ACTIONS 37),
    (anon_sym___extension, ACTIONS 101), (anon_sym___mlir_region, ACTIONS 103),
    (anon_sym_if, ACTIONS 105), (anon_sym_match, ACTIONS 107), (anon_sym_async, ACTIONS 109),
    (anon_sym_for, ACTIONS 111), (anon_sym_while, ACTIONS 113), (anon_sym_try, ACTIONS 115),
    (anon_sym_with, ACTIONS 117), (anon_sym_def, ACTIONS 119), (anon_sym_fn, ACTIONS 119),
    (anon_sym_LBRACK, ACTIONS 59), (anon_sym_LBRACE, ACTIONS 61), (anon_sym_global, ACTIONS 63),
    (anon_sym_nonlocal, ACTIONS 65), (anon_sym_exec, ACTIONS 67), (anon_sym_type, ACTIONS 69),
    (anon_sym_class, ACTIONS 121), (anon_sym_struct, ACTIONS 121), (anon_sym_mut, ACTIONS 73),
    (anon_sym_out, ACTIONS 73), (anon_sym_trait, ACTIONS 123), (anon_sym_AT, ACTIONS 77),
    (anon_sym_DASH, ACTIONS 79), (anon_sym_PLUS, ACTIONS 79), (anon_sym_ref, ACTIONS 81),
    (anon_sym_var, ACTIONS 81), (anon_sym_not, ACTIONS 83), (anon_sym_TILDE, ACTIONS 79),
    (anon_sym_lambda, ACTIONS 85), (anon_sym_yield, ACTIONS 87), (sym_ellipsis, ACTIONS 89),
    (anon_sym___mlir_type, ACTIONS 91), (sym_integer, ACTIONS 93), (sym_float, ACTIONS 89),
    (anon_sym_await, ACTIONS 95), (sym_true, ACTIONS 93), (sym_false, ACTIONS 93),
    (sym_none, ACTIONS 93), (sym_comment, ACTIONS 3), (sym_line_continuation, ACTIONS 3),
    (sym__dedent, ACTIONS 125), (sym_string_start, ACTIONS 97)]"

definition parse_table_693 :: "(nat \<times> nat) list" where "parse_table_693 = [
    (sym__statement, STATE 927), (sym__simple_statements, STATE 927),
    (sym_import_statement, STATE 11814), (sym_future_import_statement, STATE 11814),
    (sym_import_from_statement, STATE 11814), (sym_print_statement, STATE 11814),
    (sym_assert_statement, STATE 11814), (sym_comptime_assert_statement, STATE 11814),
    (sym_expression_statement, STATE 11814), (sym_tuple_expression, STATE 12425),
    (sym_named_expression, STATE 7969), (sym__named_expression_lhs, STATE 12752),
    (sym_return_statement, STATE 11814), (sym_delete_statement, STATE 11814),
    (sym_raise_statement, STATE 11814), (sym_pass_statement, STATE 11814),
    (sym_break_statement, STATE 11814), (sym_continue_statement, STATE 11814),
    (sym_extension_definition, STATE 927), (sym_mlir_region, STATE 927),
    (sym_comptime_statement, STATE 927), (sym_if_statement, STATE 927),
    (sym_match_statement, STATE 927), (sym_for_statement, STATE 927),
    (sym_while_statement, STATE 927), (sym_try_statement, STATE 927),
    (sym_with_statement, STATE 927), (sym_function_definition, STATE 927),
    (sym_global_statement, STATE 11814), (sym_nonlocal_statement, STATE 11814),
    (sym_exec_statement, STATE 11814), (sym_type_alias_statement, STATE 11814),
    (sym_parameterized_alias_statement, STATE 11814), (sym_class_definition, STATE 927),
    (sym_trait_definition, STATE 927), (sym_decorated_definition, STATE 927),
    (sym_decorator, STATE 3670), (sym_block, STATE 6043), (sym_pattern, STATE 8086),
    (sym_tuple_pattern, STATE 8101), (sym_list_pattern, STATE 8101),
    (sym_list_splat_pattern, STATE 6819), (sym_as_pattern, STATE 7969),
    (sym_expression, STATE 9883), (sym_primary_expression, STATE 7326),
    (sym_comptime_expression, STATE 7017), (sym_transfer_expression, STATE 7017),
    (sym_not_operator, STATE 7969), (sym_boolean_operator, STATE 7969),
    (sym_binary_operator, STATE 7017), (sym_unary_operator, STATE 7017),
    (sym_comparison_operator, STATE 7969), (sym_lambda, STATE 7969),
    (sym_assignment, STATE 12425), (sym_augmented_assignment, STATE 12425),
    (sym_pattern_list, STATE 8578), (sym_yield, STATE 12425), (sym_attribute, STATE 6836),
    (sym_subscript, STATE 6838), (sym_call, STATE 6845), (sym_mlir_type, STATE 7017),
    (sym_list, STATE 7017), (sym_set, STATE 7017), (sym_tuple, STATE 7017),
    (sym_dictionary, STATE 7017), (sym_struct_literal, STATE 7017),
    (sym_list_comprehension, STATE 7017), (sym_dictionary_comprehension, STATE 7017),
    (sym_set_comprehension, STATE 7017), (sym_generator_expression, STATE 7017),
    (sym_parenthesized_expression, STATE 7017), (sym_conditional_expression, STATE 7969),
    (sym_concatenated_string, STATE 7017), (sym_string, STATE 6751), (sym_await, STATE 7017),
    (aux_sym_module_repeat1, STATE 927), (aux_sym_decorated_definition_repeat1, STATE 3670),
    (sym_identifier, ACTIONS 9), (anon_sym_import, ACTIONS 11), (anon_sym_from, ACTIONS 13),
    (anon_sym_LPAREN, ACTIONS 15), (anon_sym_STAR, ACTIONS 17), (anon_sym_print, ACTIONS 19),
    (anon_sym_comptime, ACTIONS 99), (anon_sym_assert, ACTIONS 23),
    (anon_sym___comptime_assert, ACTIONS 25), (anon_sym_return, ACTIONS 27),
    (anon_sym_del, ACTIONS 29), (anon_sym_raise, ACTIONS 31), (anon_sym_pass, ACTIONS 33),
    (anon_sym_break, ACTIONS 35), (anon_sym_continue, ACTIONS 37),
    (anon_sym___extension, ACTIONS 101), (anon_sym___mlir_region, ACTIONS 103),
    (anon_sym_if, ACTIONS 105), (anon_sym_match, ACTIONS 107), (anon_sym_async, ACTIONS 109),
    (anon_sym_for, ACTIONS 111), (anon_sym_while, ACTIONS 113), (anon_sym_try, ACTIONS 115),
    (anon_sym_with, ACTIONS 117), (anon_sym_def, ACTIONS 119), (anon_sym_fn, ACTIONS 119),
    (anon_sym_LBRACK, ACTIONS 59), (anon_sym_LBRACE, ACTIONS 61), (anon_sym_global, ACTIONS 63),
    (anon_sym_nonlocal, ACTIONS 65), (anon_sym_exec, ACTIONS 67), (anon_sym_type, ACTIONS 69),
    (anon_sym_class, ACTIONS 121), (anon_sym_struct, ACTIONS 121), (anon_sym_mut, ACTIONS 73),
    (anon_sym_out, ACTIONS 73), (anon_sym_trait, ACTIONS 123), (anon_sym_AT, ACTIONS 77),
    (anon_sym_DASH, ACTIONS 79), (anon_sym_PLUS, ACTIONS 79), (anon_sym_ref, ACTIONS 81),
    (anon_sym_var, ACTIONS 81), (anon_sym_not, ACTIONS 83), (anon_sym_TILDE, ACTIONS 79),
    (anon_sym_lambda, ACTIONS 85), (anon_sym_yield, ACTIONS 87), (sym_ellipsis, ACTIONS 89),
    (anon_sym___mlir_type, ACTIONS 91), (sym_integer, ACTIONS 93), (sym_float, ACTIONS 89),
    (anon_sym_await, ACTIONS 95), (sym_true, ACTIONS 93), (sym_false, ACTIONS 93),
    (sym_none, ACTIONS 93), (sym_comment, ACTIONS 3), (sym_line_continuation, ACTIONS 3),
    (sym__dedent, ACTIONS 125), (sym_string_start, ACTIONS 97)]"

definition parse_table_694 :: "(nat \<times> nat) list" where "parse_table_694 = [
    (sym__statement, STATE 927), (sym__simple_statements, STATE 927),
    (sym_import_statement, STATE 11814), (sym_future_import_statement, STATE 11814),
    (sym_import_from_statement, STATE 11814), (sym_print_statement, STATE 11814),
    (sym_assert_statement, STATE 11814), (sym_comptime_assert_statement, STATE 11814),
    (sym_expression_statement, STATE 11814), (sym_tuple_expression, STATE 12425),
    (sym_named_expression, STATE 7969), (sym__named_expression_lhs, STATE 12752),
    (sym_return_statement, STATE 11814), (sym_delete_statement, STATE 11814),
    (sym_raise_statement, STATE 11814), (sym_pass_statement, STATE 11814),
    (sym_break_statement, STATE 11814), (sym_continue_statement, STATE 11814),
    (sym_extension_definition, STATE 927), (sym_mlir_region, STATE 927),
    (sym_comptime_statement, STATE 927), (sym_if_statement, STATE 927),
    (sym_match_statement, STATE 927), (sym_for_statement, STATE 927),
    (sym_while_statement, STATE 927), (sym_try_statement, STATE 927),
    (sym_with_statement, STATE 927), (sym_function_definition, STATE 927),
    (sym_global_statement, STATE 11814), (sym_nonlocal_statement, STATE 11814),
    (sym_exec_statement, STATE 11814), (sym_type_alias_statement, STATE 11814),
    (sym_parameterized_alias_statement, STATE 11814), (sym_class_definition, STATE 927),
    (sym_trait_definition, STATE 927), (sym_decorated_definition, STATE 927),
    (sym_decorator, STATE 3670), (sym_block, STATE 6044), (sym_pattern, STATE 8086),
    (sym_tuple_pattern, STATE 8101), (sym_list_pattern, STATE 8101),
    (sym_list_splat_pattern, STATE 6819), (sym_as_pattern, STATE 7969),
    (sym_expression, STATE 9883), (sym_primary_expression, STATE 7326),
    (sym_comptime_expression, STATE 7017), (sym_transfer_expression, STATE 7017),
    (sym_not_operator, STATE 7969), (sym_boolean_operator, STATE 7969),
    (sym_binary_operator, STATE 7017), (sym_unary_operator, STATE 7017),
    (sym_comparison_operator, STATE 7969), (sym_lambda, STATE 7969),
    (sym_assignment, STATE 12425), (sym_augmented_assignment, STATE 12425),
    (sym_pattern_list, STATE 8578), (sym_yield, STATE 12425), (sym_attribute, STATE 6836),
    (sym_subscript, STATE 6838), (sym_call, STATE 6845), (sym_mlir_type, STATE 7017),
    (sym_list, STATE 7017), (sym_set, STATE 7017), (sym_tuple, STATE 7017),
    (sym_dictionary, STATE 7017), (sym_struct_literal, STATE 7017),
    (sym_list_comprehension, STATE 7017), (sym_dictionary_comprehension, STATE 7017),
    (sym_set_comprehension, STATE 7017), (sym_generator_expression, STATE 7017),
    (sym_parenthesized_expression, STATE 7017), (sym_conditional_expression, STATE 7969),
    (sym_concatenated_string, STATE 7017), (sym_string, STATE 6751), (sym_await, STATE 7017),
    (aux_sym_module_repeat1, STATE 927), (aux_sym_decorated_definition_repeat1, STATE 3670),
    (sym_identifier, ACTIONS 9), (anon_sym_import, ACTIONS 11), (anon_sym_from, ACTIONS 13),
    (anon_sym_LPAREN, ACTIONS 15), (anon_sym_STAR, ACTIONS 17), (anon_sym_print, ACTIONS 19),
    (anon_sym_comptime, ACTIONS 99), (anon_sym_assert, ACTIONS 23),
    (anon_sym___comptime_assert, ACTIONS 25), (anon_sym_return, ACTIONS 27),
    (anon_sym_del, ACTIONS 29), (anon_sym_raise, ACTIONS 31), (anon_sym_pass, ACTIONS 33),
    (anon_sym_break, ACTIONS 35), (anon_sym_continue, ACTIONS 37),
    (anon_sym___extension, ACTIONS 101), (anon_sym___mlir_region, ACTIONS 103),
    (anon_sym_if, ACTIONS 105), (anon_sym_match, ACTIONS 107), (anon_sym_async, ACTIONS 109),
    (anon_sym_for, ACTIONS 111), (anon_sym_while, ACTIONS 113), (anon_sym_try, ACTIONS 115),
    (anon_sym_with, ACTIONS 117), (anon_sym_def, ACTIONS 119), (anon_sym_fn, ACTIONS 119),
    (anon_sym_LBRACK, ACTIONS 59), (anon_sym_LBRACE, ACTIONS 61), (anon_sym_global, ACTIONS 63),
    (anon_sym_nonlocal, ACTIONS 65), (anon_sym_exec, ACTIONS 67), (anon_sym_type, ACTIONS 69),
    (anon_sym_class, ACTIONS 121), (anon_sym_struct, ACTIONS 121), (anon_sym_mut, ACTIONS 73),
    (anon_sym_out, ACTIONS 73), (anon_sym_trait, ACTIONS 123), (anon_sym_AT, ACTIONS 77),
    (anon_sym_DASH, ACTIONS 79), (anon_sym_PLUS, ACTIONS 79), (anon_sym_ref, ACTIONS 81),
    (anon_sym_var, ACTIONS 81), (anon_sym_not, ACTIONS 83), (anon_sym_TILDE, ACTIONS 79),
    (anon_sym_lambda, ACTIONS 85), (anon_sym_yield, ACTIONS 87), (sym_ellipsis, ACTIONS 89),
    (anon_sym___mlir_type, ACTIONS 91), (sym_integer, ACTIONS 93), (sym_float, ACTIONS 89),
    (anon_sym_await, ACTIONS 95), (sym_true, ACTIONS 93), (sym_false, ACTIONS 93),
    (sym_none, ACTIONS 93), (sym_comment, ACTIONS 3), (sym_line_continuation, ACTIONS 3),
    (sym__dedent, ACTIONS 125), (sym_string_start, ACTIONS 97)]"

definition parse_table_695 :: "(nat \<times> nat) list" where "parse_table_695 = [
    (sym__statement, STATE 927), (sym__simple_statements, STATE 927),
    (sym_import_statement, STATE 11814), (sym_future_import_statement, STATE 11814),
    (sym_import_from_statement, STATE 11814), (sym_print_statement, STATE 11814),
    (sym_assert_statement, STATE 11814), (sym_comptime_assert_statement, STATE 11814),
    (sym_expression_statement, STATE 11814), (sym_tuple_expression, STATE 12425),
    (sym_named_expression, STATE 7969), (sym__named_expression_lhs, STATE 12752),
    (sym_return_statement, STATE 11814), (sym_delete_statement, STATE 11814),
    (sym_raise_statement, STATE 11814), (sym_pass_statement, STATE 11814),
    (sym_break_statement, STATE 11814), (sym_continue_statement, STATE 11814),
    (sym_extension_definition, STATE 927), (sym_mlir_region, STATE 927),
    (sym_comptime_statement, STATE 927), (sym_if_statement, STATE 927),
    (sym_match_statement, STATE 927), (sym_for_statement, STATE 927),
    (sym_while_statement, STATE 927), (sym_try_statement, STATE 927),
    (sym_with_statement, STATE 927), (sym_function_definition, STATE 927),
    (sym_global_statement, STATE 11814), (sym_nonlocal_statement, STATE 11814),
    (sym_exec_statement, STATE 11814), (sym_type_alias_statement, STATE 11814),
    (sym_parameterized_alias_statement, STATE 11814), (sym_class_definition, STATE 927),
    (sym_trait_definition, STATE 927), (sym_decorated_definition, STATE 927),
    (sym_decorator, STATE 3670), (sym_block, STATE 6046), (sym_pattern, STATE 8086),
    (sym_tuple_pattern, STATE 8101), (sym_list_pattern, STATE 8101),
    (sym_list_splat_pattern, STATE 6819), (sym_as_pattern, STATE 7969),
    (sym_expression, STATE 9883), (sym_primary_expression, STATE 7326),
    (sym_comptime_expression, STATE 7017), (sym_transfer_expression, STATE 7017),
    (sym_not_operator, STATE 7969), (sym_boolean_operator, STATE 7969),
    (sym_binary_operator, STATE 7017), (sym_unary_operator, STATE 7017),
    (sym_comparison_operator, STATE 7969), (sym_lambda, STATE 7969),
    (sym_assignment, STATE 12425), (sym_augmented_assignment, STATE 12425),
    (sym_pattern_list, STATE 8578), (sym_yield, STATE 12425), (sym_attribute, STATE 6836),
    (sym_subscript, STATE 6838), (sym_call, STATE 6845), (sym_mlir_type, STATE 7017),
    (sym_list, STATE 7017), (sym_set, STATE 7017), (sym_tuple, STATE 7017),
    (sym_dictionary, STATE 7017), (sym_struct_literal, STATE 7017),
    (sym_list_comprehension, STATE 7017), (sym_dictionary_comprehension, STATE 7017),
    (sym_set_comprehension, STATE 7017), (sym_generator_expression, STATE 7017),
    (sym_parenthesized_expression, STATE 7017), (sym_conditional_expression, STATE 7969),
    (sym_concatenated_string, STATE 7017), (sym_string, STATE 6751), (sym_await, STATE 7017),
    (aux_sym_module_repeat1, STATE 927), (aux_sym_decorated_definition_repeat1, STATE 3670),
    (sym_identifier, ACTIONS 9), (anon_sym_import, ACTIONS 11), (anon_sym_from, ACTIONS 13),
    (anon_sym_LPAREN, ACTIONS 15), (anon_sym_STAR, ACTIONS 17), (anon_sym_print, ACTIONS 19),
    (anon_sym_comptime, ACTIONS 99), (anon_sym_assert, ACTIONS 23),
    (anon_sym___comptime_assert, ACTIONS 25), (anon_sym_return, ACTIONS 27),
    (anon_sym_del, ACTIONS 29), (anon_sym_raise, ACTIONS 31), (anon_sym_pass, ACTIONS 33),
    (anon_sym_break, ACTIONS 35), (anon_sym_continue, ACTIONS 37),
    (anon_sym___extension, ACTIONS 101), (anon_sym___mlir_region, ACTIONS 103),
    (anon_sym_if, ACTIONS 105), (anon_sym_match, ACTIONS 107), (anon_sym_async, ACTIONS 109),
    (anon_sym_for, ACTIONS 111), (anon_sym_while, ACTIONS 113), (anon_sym_try, ACTIONS 115),
    (anon_sym_with, ACTIONS 117), (anon_sym_def, ACTIONS 119), (anon_sym_fn, ACTIONS 119),
    (anon_sym_LBRACK, ACTIONS 59), (anon_sym_LBRACE, ACTIONS 61), (anon_sym_global, ACTIONS 63),
    (anon_sym_nonlocal, ACTIONS 65), (anon_sym_exec, ACTIONS 67), (anon_sym_type, ACTIONS 69),
    (anon_sym_class, ACTIONS 121), (anon_sym_struct, ACTIONS 121), (anon_sym_mut, ACTIONS 73),
    (anon_sym_out, ACTIONS 73), (anon_sym_trait, ACTIONS 123), (anon_sym_AT, ACTIONS 77),
    (anon_sym_DASH, ACTIONS 79), (anon_sym_PLUS, ACTIONS 79), (anon_sym_ref, ACTIONS 81),
    (anon_sym_var, ACTIONS 81), (anon_sym_not, ACTIONS 83), (anon_sym_TILDE, ACTIONS 79),
    (anon_sym_lambda, ACTIONS 85), (anon_sym_yield, ACTIONS 87), (sym_ellipsis, ACTIONS 89),
    (anon_sym___mlir_type, ACTIONS 91), (sym_integer, ACTIONS 93), (sym_float, ACTIONS 89),
    (anon_sym_await, ACTIONS 95), (sym_true, ACTIONS 93), (sym_false, ACTIONS 93),
    (sym_none, ACTIONS 93), (sym_comment, ACTIONS 3), (sym_line_continuation, ACTIONS 3),
    (sym__dedent, ACTIONS 125), (sym_string_start, ACTIONS 97)]"

definition parse_table_696 :: "(nat \<times> nat) list" where "parse_table_696 = [
    (sym__statement, STATE 927), (sym__simple_statements, STATE 927),
    (sym_import_statement, STATE 11814), (sym_future_import_statement, STATE 11814),
    (sym_import_from_statement, STATE 11814), (sym_print_statement, STATE 11814),
    (sym_assert_statement, STATE 11814), (sym_comptime_assert_statement, STATE 11814),
    (sym_expression_statement, STATE 11814), (sym_tuple_expression, STATE 12425),
    (sym_named_expression, STATE 7969), (sym__named_expression_lhs, STATE 12752),
    (sym_return_statement, STATE 11814), (sym_delete_statement, STATE 11814),
    (sym_raise_statement, STATE 11814), (sym_pass_statement, STATE 11814),
    (sym_break_statement, STATE 11814), (sym_continue_statement, STATE 11814),
    (sym_extension_definition, STATE 927), (sym_mlir_region, STATE 927),
    (sym_comptime_statement, STATE 927), (sym_if_statement, STATE 927),
    (sym_match_statement, STATE 927), (sym_for_statement, STATE 927),
    (sym_while_statement, STATE 927), (sym_try_statement, STATE 927),
    (sym_with_statement, STATE 927), (sym_function_definition, STATE 927),
    (sym_global_statement, STATE 11814), (sym_nonlocal_statement, STATE 11814),
    (sym_exec_statement, STATE 11814), (sym_type_alias_statement, STATE 11814),
    (sym_parameterized_alias_statement, STATE 11814), (sym_class_definition, STATE 927),
    (sym_trait_definition, STATE 927), (sym_decorated_definition, STATE 927),
    (sym_decorator, STATE 3670), (sym_block, STATE 6047), (sym_pattern, STATE 8086),
    (sym_tuple_pattern, STATE 8101), (sym_list_pattern, STATE 8101),
    (sym_list_splat_pattern, STATE 6819), (sym_as_pattern, STATE 7969),
    (sym_expression, STATE 9883), (sym_primary_expression, STATE 7326),
    (sym_comptime_expression, STATE 7017), (sym_transfer_expression, STATE 7017),
    (sym_not_operator, STATE 7969), (sym_boolean_operator, STATE 7969),
    (sym_binary_operator, STATE 7017), (sym_unary_operator, STATE 7017),
    (sym_comparison_operator, STATE 7969), (sym_lambda, STATE 7969),
    (sym_assignment, STATE 12425), (sym_augmented_assignment, STATE 12425),
    (sym_pattern_list, STATE 8578), (sym_yield, STATE 12425), (sym_attribute, STATE 6836),
    (sym_subscript, STATE 6838), (sym_call, STATE 6845), (sym_mlir_type, STATE 7017),
    (sym_list, STATE 7017), (sym_set, STATE 7017), (sym_tuple, STATE 7017),
    (sym_dictionary, STATE 7017), (sym_struct_literal, STATE 7017),
    (sym_list_comprehension, STATE 7017), (sym_dictionary_comprehension, STATE 7017),
    (sym_set_comprehension, STATE 7017), (sym_generator_expression, STATE 7017),
    (sym_parenthesized_expression, STATE 7017), (sym_conditional_expression, STATE 7969),
    (sym_concatenated_string, STATE 7017), (sym_string, STATE 6751), (sym_await, STATE 7017),
    (aux_sym_module_repeat1, STATE 927), (aux_sym_decorated_definition_repeat1, STATE 3670),
    (sym_identifier, ACTIONS 9), (anon_sym_import, ACTIONS 11), (anon_sym_from, ACTIONS 13),
    (anon_sym_LPAREN, ACTIONS 15), (anon_sym_STAR, ACTIONS 17), (anon_sym_print, ACTIONS 19),
    (anon_sym_comptime, ACTIONS 99), (anon_sym_assert, ACTIONS 23),
    (anon_sym___comptime_assert, ACTIONS 25), (anon_sym_return, ACTIONS 27),
    (anon_sym_del, ACTIONS 29), (anon_sym_raise, ACTIONS 31), (anon_sym_pass, ACTIONS 33),
    (anon_sym_break, ACTIONS 35), (anon_sym_continue, ACTIONS 37),
    (anon_sym___extension, ACTIONS 101), (anon_sym___mlir_region, ACTIONS 103),
    (anon_sym_if, ACTIONS 105), (anon_sym_match, ACTIONS 107), (anon_sym_async, ACTIONS 109),
    (anon_sym_for, ACTIONS 111), (anon_sym_while, ACTIONS 113), (anon_sym_try, ACTIONS 115),
    (anon_sym_with, ACTIONS 117), (anon_sym_def, ACTIONS 119), (anon_sym_fn, ACTIONS 119),
    (anon_sym_LBRACK, ACTIONS 59), (anon_sym_LBRACE, ACTIONS 61), (anon_sym_global, ACTIONS 63),
    (anon_sym_nonlocal, ACTIONS 65), (anon_sym_exec, ACTIONS 67), (anon_sym_type, ACTIONS 69),
    (anon_sym_class, ACTIONS 121), (anon_sym_struct, ACTIONS 121), (anon_sym_mut, ACTIONS 73),
    (anon_sym_out, ACTIONS 73), (anon_sym_trait, ACTIONS 123), (anon_sym_AT, ACTIONS 77),
    (anon_sym_DASH, ACTIONS 79), (anon_sym_PLUS, ACTIONS 79), (anon_sym_ref, ACTIONS 81),
    (anon_sym_var, ACTIONS 81), (anon_sym_not, ACTIONS 83), (anon_sym_TILDE, ACTIONS 79),
    (anon_sym_lambda, ACTIONS 85), (anon_sym_yield, ACTIONS 87), (sym_ellipsis, ACTIONS 89),
    (anon_sym___mlir_type, ACTIONS 91), (sym_integer, ACTIONS 93), (sym_float, ACTIONS 89),
    (anon_sym_await, ACTIONS 95), (sym_true, ACTIONS 93), (sym_false, ACTIONS 93),
    (sym_none, ACTIONS 93), (sym_comment, ACTIONS 3), (sym_line_continuation, ACTIONS 3),
    (sym__dedent, ACTIONS 125), (sym_string_start, ACTIONS 97)]"

definition parse_table_697 :: "(nat \<times> nat) list" where "parse_table_697 = [
    (sym__statement, STATE 927), (sym__simple_statements, STATE 927),
    (sym_import_statement, STATE 11814), (sym_future_import_statement, STATE 11814),
    (sym_import_from_statement, STATE 11814), (sym_print_statement, STATE 11814),
    (sym_assert_statement, STATE 11814), (sym_comptime_assert_statement, STATE 11814),
    (sym_expression_statement, STATE 11814), (sym_tuple_expression, STATE 12425),
    (sym_named_expression, STATE 7969), (sym__named_expression_lhs, STATE 12752),
    (sym_return_statement, STATE 11814), (sym_delete_statement, STATE 11814),
    (sym_raise_statement, STATE 11814), (sym_pass_statement, STATE 11814),
    (sym_break_statement, STATE 11814), (sym_continue_statement, STATE 11814),
    (sym_extension_definition, STATE 927), (sym_mlir_region, STATE 927),
    (sym_comptime_statement, STATE 927), (sym_if_statement, STATE 927),
    (sym_match_statement, STATE 927), (sym_for_statement, STATE 927),
    (sym_while_statement, STATE 927), (sym_try_statement, STATE 927),
    (sym_with_statement, STATE 927), (sym_function_definition, STATE 927),
    (sym_global_statement, STATE 11814), (sym_nonlocal_statement, STATE 11814),
    (sym_exec_statement, STATE 11814), (sym_type_alias_statement, STATE 11814),
    (sym_parameterized_alias_statement, STATE 11814), (sym_class_definition, STATE 927),
    (sym_trait_definition, STATE 927), (sym_decorated_definition, STATE 927),
    (sym_decorator, STATE 3670), (sym_block, STATE 6051), (sym_pattern, STATE 8086),
    (sym_tuple_pattern, STATE 8101), (sym_list_pattern, STATE 8101),
    (sym_list_splat_pattern, STATE 6819), (sym_as_pattern, STATE 7969),
    (sym_expression, STATE 9883), (sym_primary_expression, STATE 7326),
    (sym_comptime_expression, STATE 7017), (sym_transfer_expression, STATE 7017),
    (sym_not_operator, STATE 7969), (sym_boolean_operator, STATE 7969),
    (sym_binary_operator, STATE 7017), (sym_unary_operator, STATE 7017),
    (sym_comparison_operator, STATE 7969), (sym_lambda, STATE 7969),
    (sym_assignment, STATE 12425), (sym_augmented_assignment, STATE 12425),
    (sym_pattern_list, STATE 8578), (sym_yield, STATE 12425), (sym_attribute, STATE 6836),
    (sym_subscript, STATE 6838), (sym_call, STATE 6845), (sym_mlir_type, STATE 7017),
    (sym_list, STATE 7017), (sym_set, STATE 7017), (sym_tuple, STATE 7017),
    (sym_dictionary, STATE 7017), (sym_struct_literal, STATE 7017),
    (sym_list_comprehension, STATE 7017), (sym_dictionary_comprehension, STATE 7017),
    (sym_set_comprehension, STATE 7017), (sym_generator_expression, STATE 7017),
    (sym_parenthesized_expression, STATE 7017), (sym_conditional_expression, STATE 7969),
    (sym_concatenated_string, STATE 7017), (sym_string, STATE 6751), (sym_await, STATE 7017),
    (aux_sym_module_repeat1, STATE 927), (aux_sym_decorated_definition_repeat1, STATE 3670),
    (sym_identifier, ACTIONS 9), (anon_sym_import, ACTIONS 11), (anon_sym_from, ACTIONS 13),
    (anon_sym_LPAREN, ACTIONS 15), (anon_sym_STAR, ACTIONS 17), (anon_sym_print, ACTIONS 19),
    (anon_sym_comptime, ACTIONS 99), (anon_sym_assert, ACTIONS 23),
    (anon_sym___comptime_assert, ACTIONS 25), (anon_sym_return, ACTIONS 27),
    (anon_sym_del, ACTIONS 29), (anon_sym_raise, ACTIONS 31), (anon_sym_pass, ACTIONS 33),
    (anon_sym_break, ACTIONS 35), (anon_sym_continue, ACTIONS 37),
    (anon_sym___extension, ACTIONS 101), (anon_sym___mlir_region, ACTIONS 103),
    (anon_sym_if, ACTIONS 105), (anon_sym_match, ACTIONS 107), (anon_sym_async, ACTIONS 109),
    (anon_sym_for, ACTIONS 111), (anon_sym_while, ACTIONS 113), (anon_sym_try, ACTIONS 115),
    (anon_sym_with, ACTIONS 117), (anon_sym_def, ACTIONS 119), (anon_sym_fn, ACTIONS 119),
    (anon_sym_LBRACK, ACTIONS 59), (anon_sym_LBRACE, ACTIONS 61), (anon_sym_global, ACTIONS 63),
    (anon_sym_nonlocal, ACTIONS 65), (anon_sym_exec, ACTIONS 67), (anon_sym_type, ACTIONS 69),
    (anon_sym_class, ACTIONS 121), (anon_sym_struct, ACTIONS 121), (anon_sym_mut, ACTIONS 73),
    (anon_sym_out, ACTIONS 73), (anon_sym_trait, ACTIONS 123), (anon_sym_AT, ACTIONS 77),
    (anon_sym_DASH, ACTIONS 79), (anon_sym_PLUS, ACTIONS 79), (anon_sym_ref, ACTIONS 81),
    (anon_sym_var, ACTIONS 81), (anon_sym_not, ACTIONS 83), (anon_sym_TILDE, ACTIONS 79),
    (anon_sym_lambda, ACTIONS 85), (anon_sym_yield, ACTIONS 87), (sym_ellipsis, ACTIONS 89),
    (anon_sym___mlir_type, ACTIONS 91), (sym_integer, ACTIONS 93), (sym_float, ACTIONS 89),
    (anon_sym_await, ACTIONS 95), (sym_true, ACTIONS 93), (sym_false, ACTIONS 93),
    (sym_none, ACTIONS 93), (sym_comment, ACTIONS 3), (sym_line_continuation, ACTIONS 3),
    (sym__dedent, ACTIONS 125), (sym_string_start, ACTIONS 97)]"

definition parse_table_698 :: "(nat \<times> nat) list" where "parse_table_698 = [
    (sym__statement, STATE 927), (sym__simple_statements, STATE 927),
    (sym_import_statement, STATE 11814), (sym_future_import_statement, STATE 11814),
    (sym_import_from_statement, STATE 11814), (sym_print_statement, STATE 11814),
    (sym_assert_statement, STATE 11814), (sym_comptime_assert_statement, STATE 11814),
    (sym_expression_statement, STATE 11814), (sym_tuple_expression, STATE 12425),
    (sym_named_expression, STATE 7969), (sym__named_expression_lhs, STATE 12752),
    (sym_return_statement, STATE 11814), (sym_delete_statement, STATE 11814),
    (sym_raise_statement, STATE 11814), (sym_pass_statement, STATE 11814),
    (sym_break_statement, STATE 11814), (sym_continue_statement, STATE 11814),
    (sym_extension_definition, STATE 927), (sym_mlir_region, STATE 927),
    (sym_comptime_statement, STATE 927), (sym_if_statement, STATE 927),
    (sym_match_statement, STATE 927), (sym_for_statement, STATE 927),
    (sym_while_statement, STATE 927), (sym_try_statement, STATE 927),
    (sym_with_statement, STATE 927), (sym_function_definition, STATE 927),
    (sym_global_statement, STATE 11814), (sym_nonlocal_statement, STATE 11814),
    (sym_exec_statement, STATE 11814), (sym_type_alias_statement, STATE 11814),
    (sym_parameterized_alias_statement, STATE 11814), (sym_class_definition, STATE 927),
    (sym_trait_definition, STATE 927), (sym_decorated_definition, STATE 927),
    (sym_decorator, STATE 3670), (sym_block, STATE 6052), (sym_pattern, STATE 8086),
    (sym_tuple_pattern, STATE 8101), (sym_list_pattern, STATE 8101),
    (sym_list_splat_pattern, STATE 6819), (sym_as_pattern, STATE 7969),
    (sym_expression, STATE 9883), (sym_primary_expression, STATE 7326),
    (sym_comptime_expression, STATE 7017), (sym_transfer_expression, STATE 7017),
    (sym_not_operator, STATE 7969), (sym_boolean_operator, STATE 7969),
    (sym_binary_operator, STATE 7017), (sym_unary_operator, STATE 7017),
    (sym_comparison_operator, STATE 7969), (sym_lambda, STATE 7969),
    (sym_assignment, STATE 12425), (sym_augmented_assignment, STATE 12425),
    (sym_pattern_list, STATE 8578), (sym_yield, STATE 12425), (sym_attribute, STATE 6836),
    (sym_subscript, STATE 6838), (sym_call, STATE 6845), (sym_mlir_type, STATE 7017),
    (sym_list, STATE 7017), (sym_set, STATE 7017), (sym_tuple, STATE 7017),
    (sym_dictionary, STATE 7017), (sym_struct_literal, STATE 7017),
    (sym_list_comprehension, STATE 7017), (sym_dictionary_comprehension, STATE 7017),
    (sym_set_comprehension, STATE 7017), (sym_generator_expression, STATE 7017),
    (sym_parenthesized_expression, STATE 7017), (sym_conditional_expression, STATE 7969),
    (sym_concatenated_string, STATE 7017), (sym_string, STATE 6751), (sym_await, STATE 7017),
    (aux_sym_module_repeat1, STATE 927), (aux_sym_decorated_definition_repeat1, STATE 3670),
    (sym_identifier, ACTIONS 9), (anon_sym_import, ACTIONS 11), (anon_sym_from, ACTIONS 13),
    (anon_sym_LPAREN, ACTIONS 15), (anon_sym_STAR, ACTIONS 17), (anon_sym_print, ACTIONS 19),
    (anon_sym_comptime, ACTIONS 99), (anon_sym_assert, ACTIONS 23),
    (anon_sym___comptime_assert, ACTIONS 25), (anon_sym_return, ACTIONS 27),
    (anon_sym_del, ACTIONS 29), (anon_sym_raise, ACTIONS 31), (anon_sym_pass, ACTIONS 33),
    (anon_sym_break, ACTIONS 35), (anon_sym_continue, ACTIONS 37),
    (anon_sym___extension, ACTIONS 101), (anon_sym___mlir_region, ACTIONS 103),
    (anon_sym_if, ACTIONS 105), (anon_sym_match, ACTIONS 107), (anon_sym_async, ACTIONS 109),
    (anon_sym_for, ACTIONS 111), (anon_sym_while, ACTIONS 113), (anon_sym_try, ACTIONS 115),
    (anon_sym_with, ACTIONS 117), (anon_sym_def, ACTIONS 119), (anon_sym_fn, ACTIONS 119),
    (anon_sym_LBRACK, ACTIONS 59), (anon_sym_LBRACE, ACTIONS 61), (anon_sym_global, ACTIONS 63),
    (anon_sym_nonlocal, ACTIONS 65), (anon_sym_exec, ACTIONS 67), (anon_sym_type, ACTIONS 69),
    (anon_sym_class, ACTIONS 121), (anon_sym_struct, ACTIONS 121), (anon_sym_mut, ACTIONS 73),
    (anon_sym_out, ACTIONS 73), (anon_sym_trait, ACTIONS 123), (anon_sym_AT, ACTIONS 77),
    (anon_sym_DASH, ACTIONS 79), (anon_sym_PLUS, ACTIONS 79), (anon_sym_ref, ACTIONS 81),
    (anon_sym_var, ACTIONS 81), (anon_sym_not, ACTIONS 83), (anon_sym_TILDE, ACTIONS 79),
    (anon_sym_lambda, ACTIONS 85), (anon_sym_yield, ACTIONS 87), (sym_ellipsis, ACTIONS 89),
    (anon_sym___mlir_type, ACTIONS 91), (sym_integer, ACTIONS 93), (sym_float, ACTIONS 89),
    (anon_sym_await, ACTIONS 95), (sym_true, ACTIONS 93), (sym_false, ACTIONS 93),
    (sym_none, ACTIONS 93), (sym_comment, ACTIONS 3), (sym_line_continuation, ACTIONS 3),
    (sym__dedent, ACTIONS 125), (sym_string_start, ACTIONS 97)]"

definition parse_table_699 :: "(nat \<times> nat) list" where "parse_table_699 = [
    (sym__statement, STATE 927), (sym__simple_statements, STATE 927),
    (sym_import_statement, STATE 11814), (sym_future_import_statement, STATE 11814),
    (sym_import_from_statement, STATE 11814), (sym_print_statement, STATE 11814),
    (sym_assert_statement, STATE 11814), (sym_comptime_assert_statement, STATE 11814),
    (sym_expression_statement, STATE 11814), (sym_tuple_expression, STATE 12425),
    (sym_named_expression, STATE 7969), (sym__named_expression_lhs, STATE 12752),
    (sym_return_statement, STATE 11814), (sym_delete_statement, STATE 11814),
    (sym_raise_statement, STATE 11814), (sym_pass_statement, STATE 11814),
    (sym_break_statement, STATE 11814), (sym_continue_statement, STATE 11814),
    (sym_extension_definition, STATE 927), (sym_mlir_region, STATE 927),
    (sym_comptime_statement, STATE 927), (sym_if_statement, STATE 927),
    (sym_match_statement, STATE 927), (sym_for_statement, STATE 927),
    (sym_while_statement, STATE 927), (sym_try_statement, STATE 927),
    (sym_with_statement, STATE 927), (sym_function_definition, STATE 927),
    (sym_global_statement, STATE 11814), (sym_nonlocal_statement, STATE 11814),
    (sym_exec_statement, STATE 11814), (sym_type_alias_statement, STATE 11814),
    (sym_parameterized_alias_statement, STATE 11814), (sym_class_definition, STATE 927),
    (sym_trait_definition, STATE 927), (sym_decorated_definition, STATE 927),
    (sym_decorator, STATE 3670), (sym_block, STATE 6057), (sym_pattern, STATE 8086),
    (sym_tuple_pattern, STATE 8101), (sym_list_pattern, STATE 8101),
    (sym_list_splat_pattern, STATE 6819), (sym_as_pattern, STATE 7969),
    (sym_expression, STATE 9883), (sym_primary_expression, STATE 7326),
    (sym_comptime_expression, STATE 7017), (sym_transfer_expression, STATE 7017),
    (sym_not_operator, STATE 7969), (sym_boolean_operator, STATE 7969),
    (sym_binary_operator, STATE 7017), (sym_unary_operator, STATE 7017),
    (sym_comparison_operator, STATE 7969), (sym_lambda, STATE 7969),
    (sym_assignment, STATE 12425), (sym_augmented_assignment, STATE 12425),
    (sym_pattern_list, STATE 8578), (sym_yield, STATE 12425), (sym_attribute, STATE 6836),
    (sym_subscript, STATE 6838), (sym_call, STATE 6845), (sym_mlir_type, STATE 7017),
    (sym_list, STATE 7017), (sym_set, STATE 7017), (sym_tuple, STATE 7017),
    (sym_dictionary, STATE 7017), (sym_struct_literal, STATE 7017),
    (sym_list_comprehension, STATE 7017), (sym_dictionary_comprehension, STATE 7017),
    (sym_set_comprehension, STATE 7017), (sym_generator_expression, STATE 7017),
    (sym_parenthesized_expression, STATE 7017), (sym_conditional_expression, STATE 7969),
    (sym_concatenated_string, STATE 7017), (sym_string, STATE 6751), (sym_await, STATE 7017),
    (aux_sym_module_repeat1, STATE 927), (aux_sym_decorated_definition_repeat1, STATE 3670),
    (sym_identifier, ACTIONS 9), (anon_sym_import, ACTIONS 11), (anon_sym_from, ACTIONS 13),
    (anon_sym_LPAREN, ACTIONS 15), (anon_sym_STAR, ACTIONS 17), (anon_sym_print, ACTIONS 19),
    (anon_sym_comptime, ACTIONS 99), (anon_sym_assert, ACTIONS 23),
    (anon_sym___comptime_assert, ACTIONS 25), (anon_sym_return, ACTIONS 27),
    (anon_sym_del, ACTIONS 29), (anon_sym_raise, ACTIONS 31), (anon_sym_pass, ACTIONS 33),
    (anon_sym_break, ACTIONS 35), (anon_sym_continue, ACTIONS 37),
    (anon_sym___extension, ACTIONS 101), (anon_sym___mlir_region, ACTIONS 103),
    (anon_sym_if, ACTIONS 105), (anon_sym_match, ACTIONS 107), (anon_sym_async, ACTIONS 109),
    (anon_sym_for, ACTIONS 111), (anon_sym_while, ACTIONS 113), (anon_sym_try, ACTIONS 115),
    (anon_sym_with, ACTIONS 117), (anon_sym_def, ACTIONS 119), (anon_sym_fn, ACTIONS 119),
    (anon_sym_LBRACK, ACTIONS 59), (anon_sym_LBRACE, ACTIONS 61), (anon_sym_global, ACTIONS 63),
    (anon_sym_nonlocal, ACTIONS 65), (anon_sym_exec, ACTIONS 67), (anon_sym_type, ACTIONS 69),
    (anon_sym_class, ACTIONS 121), (anon_sym_struct, ACTIONS 121), (anon_sym_mut, ACTIONS 73),
    (anon_sym_out, ACTIONS 73), (anon_sym_trait, ACTIONS 123), (anon_sym_AT, ACTIONS 77),
    (anon_sym_DASH, ACTIONS 79), (anon_sym_PLUS, ACTIONS 79), (anon_sym_ref, ACTIONS 81),
    (anon_sym_var, ACTIONS 81), (anon_sym_not, ACTIONS 83), (anon_sym_TILDE, ACTIONS 79),
    (anon_sym_lambda, ACTIONS 85), (anon_sym_yield, ACTIONS 87), (sym_ellipsis, ACTIONS 89),
    (anon_sym___mlir_type, ACTIONS 91), (sym_integer, ACTIONS 93), (sym_float, ACTIONS 89),
    (anon_sym_await, ACTIONS 95), (sym_true, ACTIONS 93), (sym_false, ACTIONS 93),
    (sym_none, ACTIONS 93), (sym_comment, ACTIONS 3), (sym_line_continuation, ACTIONS 3),
    (sym__dedent, ACTIONS 125), (sym_string_start, ACTIONS 97)]"

definition parse_table_700 :: "(nat \<times> nat) list" where "parse_table_700 = [
    (sym__statement, STATE 927), (sym__simple_statements, STATE 927),
    (sym_import_statement, STATE 11814), (sym_future_import_statement, STATE 11814),
    (sym_import_from_statement, STATE 11814), (sym_print_statement, STATE 11814),
    (sym_assert_statement, STATE 11814), (sym_comptime_assert_statement, STATE 11814),
    (sym_expression_statement, STATE 11814), (sym_tuple_expression, STATE 12425),
    (sym_named_expression, STATE 7969), (sym__named_expression_lhs, STATE 12752),
    (sym_return_statement, STATE 11814), (sym_delete_statement, STATE 11814),
    (sym_raise_statement, STATE 11814), (sym_pass_statement, STATE 11814),
    (sym_break_statement, STATE 11814), (sym_continue_statement, STATE 11814),
    (sym_extension_definition, STATE 927), (sym_mlir_region, STATE 927),
    (sym_comptime_statement, STATE 927), (sym_if_statement, STATE 927),
    (sym_match_statement, STATE 927), (sym_for_statement, STATE 927),
    (sym_while_statement, STATE 927), (sym_try_statement, STATE 927),
    (sym_with_statement, STATE 927), (sym_function_definition, STATE 927),
    (sym_global_statement, STATE 11814), (sym_nonlocal_statement, STATE 11814),
    (sym_exec_statement, STATE 11814), (sym_type_alias_statement, STATE 11814),
    (sym_parameterized_alias_statement, STATE 11814), (sym_class_definition, STATE 927),
    (sym_trait_definition, STATE 927), (sym_decorated_definition, STATE 927),
    (sym_decorator, STATE 3670), (sym_block, STATE 6060), (sym_pattern, STATE 8086),
    (sym_tuple_pattern, STATE 8101), (sym_list_pattern, STATE 8101),
    (sym_list_splat_pattern, STATE 6819), (sym_as_pattern, STATE 7969),
    (sym_expression, STATE 9883), (sym_primary_expression, STATE 7326),
    (sym_comptime_expression, STATE 7017), (sym_transfer_expression, STATE 7017),
    (sym_not_operator, STATE 7969), (sym_boolean_operator, STATE 7969),
    (sym_binary_operator, STATE 7017), (sym_unary_operator, STATE 7017),
    (sym_comparison_operator, STATE 7969), (sym_lambda, STATE 7969),
    (sym_assignment, STATE 12425), (sym_augmented_assignment, STATE 12425),
    (sym_pattern_list, STATE 8578), (sym_yield, STATE 12425), (sym_attribute, STATE 6836),
    (sym_subscript, STATE 6838), (sym_call, STATE 6845), (sym_mlir_type, STATE 7017),
    (sym_list, STATE 7017), (sym_set, STATE 7017), (sym_tuple, STATE 7017),
    (sym_dictionary, STATE 7017), (sym_struct_literal, STATE 7017),
    (sym_list_comprehension, STATE 7017), (sym_dictionary_comprehension, STATE 7017),
    (sym_set_comprehension, STATE 7017), (sym_generator_expression, STATE 7017),
    (sym_parenthesized_expression, STATE 7017), (sym_conditional_expression, STATE 7969),
    (sym_concatenated_string, STATE 7017), (sym_string, STATE 6751), (sym_await, STATE 7017),
    (aux_sym_module_repeat1, STATE 927), (aux_sym_decorated_definition_repeat1, STATE 3670),
    (sym_identifier, ACTIONS 9), (anon_sym_import, ACTIONS 11), (anon_sym_from, ACTIONS 13),
    (anon_sym_LPAREN, ACTIONS 15), (anon_sym_STAR, ACTIONS 17), (anon_sym_print, ACTIONS 19),
    (anon_sym_comptime, ACTIONS 99), (anon_sym_assert, ACTIONS 23),
    (anon_sym___comptime_assert, ACTIONS 25), (anon_sym_return, ACTIONS 27),
    (anon_sym_del, ACTIONS 29), (anon_sym_raise, ACTIONS 31), (anon_sym_pass, ACTIONS 33),
    (anon_sym_break, ACTIONS 35), (anon_sym_continue, ACTIONS 37),
    (anon_sym___extension, ACTIONS 101), (anon_sym___mlir_region, ACTIONS 103),
    (anon_sym_if, ACTIONS 105), (anon_sym_match, ACTIONS 107), (anon_sym_async, ACTIONS 109),
    (anon_sym_for, ACTIONS 111), (anon_sym_while, ACTIONS 113), (anon_sym_try, ACTIONS 115),
    (anon_sym_with, ACTIONS 117), (anon_sym_def, ACTIONS 119), (anon_sym_fn, ACTIONS 119),
    (anon_sym_LBRACK, ACTIONS 59), (anon_sym_LBRACE, ACTIONS 61), (anon_sym_global, ACTIONS 63),
    (anon_sym_nonlocal, ACTIONS 65), (anon_sym_exec, ACTIONS 67), (anon_sym_type, ACTIONS 69),
    (anon_sym_class, ACTIONS 121), (anon_sym_struct, ACTIONS 121), (anon_sym_mut, ACTIONS 73),
    (anon_sym_out, ACTIONS 73), (anon_sym_trait, ACTIONS 123), (anon_sym_AT, ACTIONS 77),
    (anon_sym_DASH, ACTIONS 79), (anon_sym_PLUS, ACTIONS 79), (anon_sym_ref, ACTIONS 81),
    (anon_sym_var, ACTIONS 81), (anon_sym_not, ACTIONS 83), (anon_sym_TILDE, ACTIONS 79),
    (anon_sym_lambda, ACTIONS 85), (anon_sym_yield, ACTIONS 87), (sym_ellipsis, ACTIONS 89),
    (anon_sym___mlir_type, ACTIONS 91), (sym_integer, ACTIONS 93), (sym_float, ACTIONS 89),
    (anon_sym_await, ACTIONS 95), (sym_true, ACTIONS 93), (sym_false, ACTIONS 93),
    (sym_none, ACTIONS 93), (sym_comment, ACTIONS 3), (sym_line_continuation, ACTIONS 3),
    (sym__dedent, ACTIONS 125), (sym_string_start, ACTIONS 97)]"

definition parse_table_701 :: "(nat \<times> nat) list" where "parse_table_701 = [
    (sym__statement, STATE 927), (sym__simple_statements, STATE 927),
    (sym_import_statement, STATE 11814), (sym_future_import_statement, STATE 11814),
    (sym_import_from_statement, STATE 11814), (sym_print_statement, STATE 11814),
    (sym_assert_statement, STATE 11814), (sym_comptime_assert_statement, STATE 11814),
    (sym_expression_statement, STATE 11814), (sym_tuple_expression, STATE 12425),
    (sym_named_expression, STATE 7969), (sym__named_expression_lhs, STATE 12752),
    (sym_return_statement, STATE 11814), (sym_delete_statement, STATE 11814),
    (sym_raise_statement, STATE 11814), (sym_pass_statement, STATE 11814),
    (sym_break_statement, STATE 11814), (sym_continue_statement, STATE 11814),
    (sym_extension_definition, STATE 927), (sym_mlir_region, STATE 927),
    (sym_comptime_statement, STATE 927), (sym_if_statement, STATE 927),
    (sym_match_statement, STATE 927), (sym_for_statement, STATE 927),
    (sym_while_statement, STATE 927), (sym_try_statement, STATE 927),
    (sym_with_statement, STATE 927), (sym_function_definition, STATE 927),
    (sym_global_statement, STATE 11814), (sym_nonlocal_statement, STATE 11814),
    (sym_exec_statement, STATE 11814), (sym_type_alias_statement, STATE 11814),
    (sym_parameterized_alias_statement, STATE 11814), (sym_class_definition, STATE 927),
    (sym_trait_definition, STATE 927), (sym_decorated_definition, STATE 927),
    (sym_decorator, STATE 3670), (sym_block, STATE 6069), (sym_pattern, STATE 8086),
    (sym_tuple_pattern, STATE 8101), (sym_list_pattern, STATE 8101),
    (sym_list_splat_pattern, STATE 6819), (sym_as_pattern, STATE 7969),
    (sym_expression, STATE 9883), (sym_primary_expression, STATE 7326),
    (sym_comptime_expression, STATE 7017), (sym_transfer_expression, STATE 7017),
    (sym_not_operator, STATE 7969), (sym_boolean_operator, STATE 7969),
    (sym_binary_operator, STATE 7017), (sym_unary_operator, STATE 7017),
    (sym_comparison_operator, STATE 7969), (sym_lambda, STATE 7969),
    (sym_assignment, STATE 12425), (sym_augmented_assignment, STATE 12425),
    (sym_pattern_list, STATE 8578), (sym_yield, STATE 12425), (sym_attribute, STATE 6836),
    (sym_subscript, STATE 6838), (sym_call, STATE 6845), (sym_mlir_type, STATE 7017),
    (sym_list, STATE 7017), (sym_set, STATE 7017), (sym_tuple, STATE 7017),
    (sym_dictionary, STATE 7017), (sym_struct_literal, STATE 7017),
    (sym_list_comprehension, STATE 7017), (sym_dictionary_comprehension, STATE 7017),
    (sym_set_comprehension, STATE 7017), (sym_generator_expression, STATE 7017),
    (sym_parenthesized_expression, STATE 7017), (sym_conditional_expression, STATE 7969),
    (sym_concatenated_string, STATE 7017), (sym_string, STATE 6751), (sym_await, STATE 7017),
    (aux_sym_module_repeat1, STATE 927), (aux_sym_decorated_definition_repeat1, STATE 3670),
    (sym_identifier, ACTIONS 9), (anon_sym_import, ACTIONS 11), (anon_sym_from, ACTIONS 13),
    (anon_sym_LPAREN, ACTIONS 15), (anon_sym_STAR, ACTIONS 17), (anon_sym_print, ACTIONS 19),
    (anon_sym_comptime, ACTIONS 99), (anon_sym_assert, ACTIONS 23),
    (anon_sym___comptime_assert, ACTIONS 25), (anon_sym_return, ACTIONS 27),
    (anon_sym_del, ACTIONS 29), (anon_sym_raise, ACTIONS 31), (anon_sym_pass, ACTIONS 33),
    (anon_sym_break, ACTIONS 35), (anon_sym_continue, ACTIONS 37),
    (anon_sym___extension, ACTIONS 101), (anon_sym___mlir_region, ACTIONS 103),
    (anon_sym_if, ACTIONS 105), (anon_sym_match, ACTIONS 107), (anon_sym_async, ACTIONS 109),
    (anon_sym_for, ACTIONS 111), (anon_sym_while, ACTIONS 113), (anon_sym_try, ACTIONS 115),
    (anon_sym_with, ACTIONS 117), (anon_sym_def, ACTIONS 119), (anon_sym_fn, ACTIONS 119),
    (anon_sym_LBRACK, ACTIONS 59), (anon_sym_LBRACE, ACTIONS 61), (anon_sym_global, ACTIONS 63),
    (anon_sym_nonlocal, ACTIONS 65), (anon_sym_exec, ACTIONS 67), (anon_sym_type, ACTIONS 69),
    (anon_sym_class, ACTIONS 121), (anon_sym_struct, ACTIONS 121), (anon_sym_mut, ACTIONS 73),
    (anon_sym_out, ACTIONS 73), (anon_sym_trait, ACTIONS 123), (anon_sym_AT, ACTIONS 77),
    (anon_sym_DASH, ACTIONS 79), (anon_sym_PLUS, ACTIONS 79), (anon_sym_ref, ACTIONS 81),
    (anon_sym_var, ACTIONS 81), (anon_sym_not, ACTIONS 83), (anon_sym_TILDE, ACTIONS 79),
    (anon_sym_lambda, ACTIONS 85), (anon_sym_yield, ACTIONS 87), (sym_ellipsis, ACTIONS 89),
    (anon_sym___mlir_type, ACTIONS 91), (sym_integer, ACTIONS 93), (sym_float, ACTIONS 89),
    (anon_sym_await, ACTIONS 95), (sym_true, ACTIONS 93), (sym_false, ACTIONS 93),
    (sym_none, ACTIONS 93), (sym_comment, ACTIONS 3), (sym_line_continuation, ACTIONS 3),
    (sym__dedent, ACTIONS 125), (sym_string_start, ACTIONS 97)]"

definition parse_table_702 :: "(nat \<times> nat) list" where "parse_table_702 = [
    (sym__statement, STATE 927), (sym__simple_statements, STATE 927),
    (sym_import_statement, STATE 11814), (sym_future_import_statement, STATE 11814),
    (sym_import_from_statement, STATE 11814), (sym_print_statement, STATE 11814),
    (sym_assert_statement, STATE 11814), (sym_comptime_assert_statement, STATE 11814),
    (sym_expression_statement, STATE 11814), (sym_tuple_expression, STATE 12425),
    (sym_named_expression, STATE 7969), (sym__named_expression_lhs, STATE 12752),
    (sym_return_statement, STATE 11814), (sym_delete_statement, STATE 11814),
    (sym_raise_statement, STATE 11814), (sym_pass_statement, STATE 11814),
    (sym_break_statement, STATE 11814), (sym_continue_statement, STATE 11814),
    (sym_extension_definition, STATE 927), (sym_mlir_region, STATE 927),
    (sym_comptime_statement, STATE 927), (sym_if_statement, STATE 927),
    (sym_match_statement, STATE 927), (sym_for_statement, STATE 927),
    (sym_while_statement, STATE 927), (sym_try_statement, STATE 927),
    (sym_with_statement, STATE 927), (sym_function_definition, STATE 927),
    (sym_global_statement, STATE 11814), (sym_nonlocal_statement, STATE 11814),
    (sym_exec_statement, STATE 11814), (sym_type_alias_statement, STATE 11814),
    (sym_parameterized_alias_statement, STATE 11814), (sym_class_definition, STATE 927),
    (sym_trait_definition, STATE 927), (sym_decorated_definition, STATE 927),
    (sym_decorator, STATE 3670), (sym_block, STATE 6074), (sym_pattern, STATE 8086),
    (sym_tuple_pattern, STATE 8101), (sym_list_pattern, STATE 8101),
    (sym_list_splat_pattern, STATE 6819), (sym_as_pattern, STATE 7969),
    (sym_expression, STATE 9883), (sym_primary_expression, STATE 7326),
    (sym_comptime_expression, STATE 7017), (sym_transfer_expression, STATE 7017),
    (sym_not_operator, STATE 7969), (sym_boolean_operator, STATE 7969),
    (sym_binary_operator, STATE 7017), (sym_unary_operator, STATE 7017),
    (sym_comparison_operator, STATE 7969), (sym_lambda, STATE 7969),
    (sym_assignment, STATE 12425), (sym_augmented_assignment, STATE 12425),
    (sym_pattern_list, STATE 8578), (sym_yield, STATE 12425), (sym_attribute, STATE 6836),
    (sym_subscript, STATE 6838), (sym_call, STATE 6845), (sym_mlir_type, STATE 7017),
    (sym_list, STATE 7017), (sym_set, STATE 7017), (sym_tuple, STATE 7017),
    (sym_dictionary, STATE 7017), (sym_struct_literal, STATE 7017),
    (sym_list_comprehension, STATE 7017), (sym_dictionary_comprehension, STATE 7017),
    (sym_set_comprehension, STATE 7017), (sym_generator_expression, STATE 7017),
    (sym_parenthesized_expression, STATE 7017), (sym_conditional_expression, STATE 7969),
    (sym_concatenated_string, STATE 7017), (sym_string, STATE 6751), (sym_await, STATE 7017),
    (aux_sym_module_repeat1, STATE 927), (aux_sym_decorated_definition_repeat1, STATE 3670),
    (sym_identifier, ACTIONS 9), (anon_sym_import, ACTIONS 11), (anon_sym_from, ACTIONS 13),
    (anon_sym_LPAREN, ACTIONS 15), (anon_sym_STAR, ACTIONS 17), (anon_sym_print, ACTIONS 19),
    (anon_sym_comptime, ACTIONS 99), (anon_sym_assert, ACTIONS 23),
    (anon_sym___comptime_assert, ACTIONS 25), (anon_sym_return, ACTIONS 27),
    (anon_sym_del, ACTIONS 29), (anon_sym_raise, ACTIONS 31), (anon_sym_pass, ACTIONS 33),
    (anon_sym_break, ACTIONS 35), (anon_sym_continue, ACTIONS 37),
    (anon_sym___extension, ACTIONS 101), (anon_sym___mlir_region, ACTIONS 103),
    (anon_sym_if, ACTIONS 105), (anon_sym_match, ACTIONS 107), (anon_sym_async, ACTIONS 109),
    (anon_sym_for, ACTIONS 111), (anon_sym_while, ACTIONS 113), (anon_sym_try, ACTIONS 115),
    (anon_sym_with, ACTIONS 117), (anon_sym_def, ACTIONS 119), (anon_sym_fn, ACTIONS 119),
    (anon_sym_LBRACK, ACTIONS 59), (anon_sym_LBRACE, ACTIONS 61), (anon_sym_global, ACTIONS 63),
    (anon_sym_nonlocal, ACTIONS 65), (anon_sym_exec, ACTIONS 67), (anon_sym_type, ACTIONS 69),
    (anon_sym_class, ACTIONS 121), (anon_sym_struct, ACTIONS 121), (anon_sym_mut, ACTIONS 73),
    (anon_sym_out, ACTIONS 73), (anon_sym_trait, ACTIONS 123), (anon_sym_AT, ACTIONS 77),
    (anon_sym_DASH, ACTIONS 79), (anon_sym_PLUS, ACTIONS 79), (anon_sym_ref, ACTIONS 81),
    (anon_sym_var, ACTIONS 81), (anon_sym_not, ACTIONS 83), (anon_sym_TILDE, ACTIONS 79),
    (anon_sym_lambda, ACTIONS 85), (anon_sym_yield, ACTIONS 87), (sym_ellipsis, ACTIONS 89),
    (anon_sym___mlir_type, ACTIONS 91), (sym_integer, ACTIONS 93), (sym_float, ACTIONS 89),
    (anon_sym_await, ACTIONS 95), (sym_true, ACTIONS 93), (sym_false, ACTIONS 93),
    (sym_none, ACTIONS 93), (sym_comment, ACTIONS 3), (sym_line_continuation, ACTIONS 3),
    (sym__dedent, ACTIONS 125), (sym_string_start, ACTIONS 97)]"

definition parse_table_703 :: "(nat \<times> nat) list" where "parse_table_703 = [
    (sym__statement, STATE 927), (sym__simple_statements, STATE 927),
    (sym_import_statement, STATE 11814), (sym_future_import_statement, STATE 11814),
    (sym_import_from_statement, STATE 11814), (sym_print_statement, STATE 11814),
    (sym_assert_statement, STATE 11814), (sym_comptime_assert_statement, STATE 11814),
    (sym_expression_statement, STATE 11814), (sym_tuple_expression, STATE 12425),
    (sym_named_expression, STATE 7969), (sym__named_expression_lhs, STATE 12752),
    (sym_return_statement, STATE 11814), (sym_delete_statement, STATE 11814),
    (sym_raise_statement, STATE 11814), (sym_pass_statement, STATE 11814),
    (sym_break_statement, STATE 11814), (sym_continue_statement, STATE 11814),
    (sym_extension_definition, STATE 927), (sym_mlir_region, STATE 927),
    (sym_comptime_statement, STATE 927), (sym_if_statement, STATE 927),
    (sym_match_statement, STATE 927), (sym_for_statement, STATE 927),
    (sym_while_statement, STATE 927), (sym_try_statement, STATE 927),
    (sym_with_statement, STATE 927), (sym_function_definition, STATE 927),
    (sym_global_statement, STATE 11814), (sym_nonlocal_statement, STATE 11814),
    (sym_exec_statement, STATE 11814), (sym_type_alias_statement, STATE 11814),
    (sym_parameterized_alias_statement, STATE 11814), (sym_class_definition, STATE 927),
    (sym_trait_definition, STATE 927), (sym_decorated_definition, STATE 927),
    (sym_decorator, STATE 3670), (sym_block, STATE 6089), (sym_pattern, STATE 8086),
    (sym_tuple_pattern, STATE 8101), (sym_list_pattern, STATE 8101),
    (sym_list_splat_pattern, STATE 6819), (sym_as_pattern, STATE 7969),
    (sym_expression, STATE 9883), (sym_primary_expression, STATE 7326),
    (sym_comptime_expression, STATE 7017), (sym_transfer_expression, STATE 7017),
    (sym_not_operator, STATE 7969), (sym_boolean_operator, STATE 7969),
    (sym_binary_operator, STATE 7017), (sym_unary_operator, STATE 7017),
    (sym_comparison_operator, STATE 7969), (sym_lambda, STATE 7969),
    (sym_assignment, STATE 12425), (sym_augmented_assignment, STATE 12425),
    (sym_pattern_list, STATE 8578), (sym_yield, STATE 12425), (sym_attribute, STATE 6836),
    (sym_subscript, STATE 6838), (sym_call, STATE 6845), (sym_mlir_type, STATE 7017),
    (sym_list, STATE 7017), (sym_set, STATE 7017), (sym_tuple, STATE 7017),
    (sym_dictionary, STATE 7017), (sym_struct_literal, STATE 7017),
    (sym_list_comprehension, STATE 7017), (sym_dictionary_comprehension, STATE 7017),
    (sym_set_comprehension, STATE 7017), (sym_generator_expression, STATE 7017),
    (sym_parenthesized_expression, STATE 7017), (sym_conditional_expression, STATE 7969),
    (sym_concatenated_string, STATE 7017), (sym_string, STATE 6751), (sym_await, STATE 7017),
    (aux_sym_module_repeat1, STATE 927), (aux_sym_decorated_definition_repeat1, STATE 3670),
    (sym_identifier, ACTIONS 9), (anon_sym_import, ACTIONS 11), (anon_sym_from, ACTIONS 13),
    (anon_sym_LPAREN, ACTIONS 15), (anon_sym_STAR, ACTIONS 17), (anon_sym_print, ACTIONS 19),
    (anon_sym_comptime, ACTIONS 99), (anon_sym_assert, ACTIONS 23),
    (anon_sym___comptime_assert, ACTIONS 25), (anon_sym_return, ACTIONS 27),
    (anon_sym_del, ACTIONS 29), (anon_sym_raise, ACTIONS 31), (anon_sym_pass, ACTIONS 33),
    (anon_sym_break, ACTIONS 35), (anon_sym_continue, ACTIONS 37),
    (anon_sym___extension, ACTIONS 101), (anon_sym___mlir_region, ACTIONS 103),
    (anon_sym_if, ACTIONS 105), (anon_sym_match, ACTIONS 107), (anon_sym_async, ACTIONS 109),
    (anon_sym_for, ACTIONS 111), (anon_sym_while, ACTIONS 113), (anon_sym_try, ACTIONS 115),
    (anon_sym_with, ACTIONS 117), (anon_sym_def, ACTIONS 119), (anon_sym_fn, ACTIONS 119),
    (anon_sym_LBRACK, ACTIONS 59), (anon_sym_LBRACE, ACTIONS 61), (anon_sym_global, ACTIONS 63),
    (anon_sym_nonlocal, ACTIONS 65), (anon_sym_exec, ACTIONS 67), (anon_sym_type, ACTIONS 69),
    (anon_sym_class, ACTIONS 121), (anon_sym_struct, ACTIONS 121), (anon_sym_mut, ACTIONS 73),
    (anon_sym_out, ACTIONS 73), (anon_sym_trait, ACTIONS 123), (anon_sym_AT, ACTIONS 77),
    (anon_sym_DASH, ACTIONS 79), (anon_sym_PLUS, ACTIONS 79), (anon_sym_ref, ACTIONS 81),
    (anon_sym_var, ACTIONS 81), (anon_sym_not, ACTIONS 83), (anon_sym_TILDE, ACTIONS 79),
    (anon_sym_lambda, ACTIONS 85), (anon_sym_yield, ACTIONS 87), (sym_ellipsis, ACTIONS 89),
    (anon_sym___mlir_type, ACTIONS 91), (sym_integer, ACTIONS 93), (sym_float, ACTIONS 89),
    (anon_sym_await, ACTIONS 95), (sym_true, ACTIONS 93), (sym_false, ACTIONS 93),
    (sym_none, ACTIONS 93), (sym_comment, ACTIONS 3), (sym_line_continuation, ACTIONS 3),
    (sym__dedent, ACTIONS 125), (sym_string_start, ACTIONS 97)]"

definition parse_table_704 :: "(nat \<times> nat) list" where "parse_table_704 = [
    (sym__statement, STATE 927), (sym__simple_statements, STATE 927),
    (sym_import_statement, STATE 11814), (sym_future_import_statement, STATE 11814),
    (sym_import_from_statement, STATE 11814), (sym_print_statement, STATE 11814),
    (sym_assert_statement, STATE 11814), (sym_comptime_assert_statement, STATE 11814),
    (sym_expression_statement, STATE 11814), (sym_tuple_expression, STATE 12425),
    (sym_named_expression, STATE 7969), (sym__named_expression_lhs, STATE 12752),
    (sym_return_statement, STATE 11814), (sym_delete_statement, STATE 11814),
    (sym_raise_statement, STATE 11814), (sym_pass_statement, STATE 11814),
    (sym_break_statement, STATE 11814), (sym_continue_statement, STATE 11814),
    (sym_extension_definition, STATE 927), (sym_mlir_region, STATE 927),
    (sym_comptime_statement, STATE 927), (sym_if_statement, STATE 927),
    (sym_match_statement, STATE 927), (sym_for_statement, STATE 927),
    (sym_while_statement, STATE 927), (sym_try_statement, STATE 927),
    (sym_with_statement, STATE 927), (sym_function_definition, STATE 927),
    (sym_global_statement, STATE 11814), (sym_nonlocal_statement, STATE 11814),
    (sym_exec_statement, STATE 11814), (sym_type_alias_statement, STATE 11814),
    (sym_parameterized_alias_statement, STATE 11814), (sym_class_definition, STATE 927),
    (sym_trait_definition, STATE 927), (sym_decorated_definition, STATE 927),
    (sym_decorator, STATE 3670), (sym_block, STATE 6100), (sym_pattern, STATE 8086),
    (sym_tuple_pattern, STATE 8101), (sym_list_pattern, STATE 8101),
    (sym_list_splat_pattern, STATE 6819), (sym_as_pattern, STATE 7969),
    (sym_expression, STATE 9883), (sym_primary_expression, STATE 7326),
    (sym_comptime_expression, STATE 7017), (sym_transfer_expression, STATE 7017),
    (sym_not_operator, STATE 7969), (sym_boolean_operator, STATE 7969),
    (sym_binary_operator, STATE 7017), (sym_unary_operator, STATE 7017),
    (sym_comparison_operator, STATE 7969), (sym_lambda, STATE 7969),
    (sym_assignment, STATE 12425), (sym_augmented_assignment, STATE 12425),
    (sym_pattern_list, STATE 8578), (sym_yield, STATE 12425), (sym_attribute, STATE 6836),
    (sym_subscript, STATE 6838), (sym_call, STATE 6845), (sym_mlir_type, STATE 7017),
    (sym_list, STATE 7017), (sym_set, STATE 7017), (sym_tuple, STATE 7017),
    (sym_dictionary, STATE 7017), (sym_struct_literal, STATE 7017),
    (sym_list_comprehension, STATE 7017), (sym_dictionary_comprehension, STATE 7017),
    (sym_set_comprehension, STATE 7017), (sym_generator_expression, STATE 7017),
    (sym_parenthesized_expression, STATE 7017), (sym_conditional_expression, STATE 7969),
    (sym_concatenated_string, STATE 7017), (sym_string, STATE 6751), (sym_await, STATE 7017),
    (aux_sym_module_repeat1, STATE 927), (aux_sym_decorated_definition_repeat1, STATE 3670),
    (sym_identifier, ACTIONS 9), (anon_sym_import, ACTIONS 11), (anon_sym_from, ACTIONS 13),
    (anon_sym_LPAREN, ACTIONS 15), (anon_sym_STAR, ACTIONS 17), (anon_sym_print, ACTIONS 19),
    (anon_sym_comptime, ACTIONS 99), (anon_sym_assert, ACTIONS 23),
    (anon_sym___comptime_assert, ACTIONS 25), (anon_sym_return, ACTIONS 27),
    (anon_sym_del, ACTIONS 29), (anon_sym_raise, ACTIONS 31), (anon_sym_pass, ACTIONS 33),
    (anon_sym_break, ACTIONS 35), (anon_sym_continue, ACTIONS 37),
    (anon_sym___extension, ACTIONS 101), (anon_sym___mlir_region, ACTIONS 103),
    (anon_sym_if, ACTIONS 105), (anon_sym_match, ACTIONS 107), (anon_sym_async, ACTIONS 109),
    (anon_sym_for, ACTIONS 111), (anon_sym_while, ACTIONS 113), (anon_sym_try, ACTIONS 115),
    (anon_sym_with, ACTIONS 117), (anon_sym_def, ACTIONS 119), (anon_sym_fn, ACTIONS 119),
    (anon_sym_LBRACK, ACTIONS 59), (anon_sym_LBRACE, ACTIONS 61), (anon_sym_global, ACTIONS 63),
    (anon_sym_nonlocal, ACTIONS 65), (anon_sym_exec, ACTIONS 67), (anon_sym_type, ACTIONS 69),
    (anon_sym_class, ACTIONS 121), (anon_sym_struct, ACTIONS 121), (anon_sym_mut, ACTIONS 73),
    (anon_sym_out, ACTIONS 73), (anon_sym_trait, ACTIONS 123), (anon_sym_AT, ACTIONS 77),
    (anon_sym_DASH, ACTIONS 79), (anon_sym_PLUS, ACTIONS 79), (anon_sym_ref, ACTIONS 81),
    (anon_sym_var, ACTIONS 81), (anon_sym_not, ACTIONS 83), (anon_sym_TILDE, ACTIONS 79),
    (anon_sym_lambda, ACTIONS 85), (anon_sym_yield, ACTIONS 87), (sym_ellipsis, ACTIONS 89),
    (anon_sym___mlir_type, ACTIONS 91), (sym_integer, ACTIONS 93), (sym_float, ACTIONS 89),
    (anon_sym_await, ACTIONS 95), (sym_true, ACTIONS 93), (sym_false, ACTIONS 93),
    (sym_none, ACTIONS 93), (sym_comment, ACTIONS 3), (sym_line_continuation, ACTIONS 3),
    (sym__dedent, ACTIONS 125), (sym_string_start, ACTIONS 97)]"

definition parse_table_705 :: "(nat \<times> nat) list" where "parse_table_705 = [
    (sym__statement, STATE 927), (sym__simple_statements, STATE 927),
    (sym_import_statement, STATE 11814), (sym_future_import_statement, STATE 11814),
    (sym_import_from_statement, STATE 11814), (sym_print_statement, STATE 11814),
    (sym_assert_statement, STATE 11814), (sym_comptime_assert_statement, STATE 11814),
    (sym_expression_statement, STATE 11814), (sym_tuple_expression, STATE 12425),
    (sym_named_expression, STATE 7969), (sym__named_expression_lhs, STATE 12752),
    (sym_return_statement, STATE 11814), (sym_delete_statement, STATE 11814),
    (sym_raise_statement, STATE 11814), (sym_pass_statement, STATE 11814),
    (sym_break_statement, STATE 11814), (sym_continue_statement, STATE 11814),
    (sym_extension_definition, STATE 927), (sym_mlir_region, STATE 927),
    (sym_comptime_statement, STATE 927), (sym_if_statement, STATE 927),
    (sym_match_statement, STATE 927), (sym_for_statement, STATE 927),
    (sym_while_statement, STATE 927), (sym_try_statement, STATE 927),
    (sym_with_statement, STATE 927), (sym_function_definition, STATE 927),
    (sym_global_statement, STATE 11814), (sym_nonlocal_statement, STATE 11814),
    (sym_exec_statement, STATE 11814), (sym_type_alias_statement, STATE 11814),
    (sym_parameterized_alias_statement, STATE 11814), (sym_class_definition, STATE 927),
    (sym_trait_definition, STATE 927), (sym_decorated_definition, STATE 927),
    (sym_decorator, STATE 3670), (sym_block, STATE 6101), (sym_pattern, STATE 8086),
    (sym_tuple_pattern, STATE 8101), (sym_list_pattern, STATE 8101),
    (sym_list_splat_pattern, STATE 6819), (sym_as_pattern, STATE 7969),
    (sym_expression, STATE 9883), (sym_primary_expression, STATE 7326),
    (sym_comptime_expression, STATE 7017), (sym_transfer_expression, STATE 7017),
    (sym_not_operator, STATE 7969), (sym_boolean_operator, STATE 7969),
    (sym_binary_operator, STATE 7017), (sym_unary_operator, STATE 7017),
    (sym_comparison_operator, STATE 7969), (sym_lambda, STATE 7969),
    (sym_assignment, STATE 12425), (sym_augmented_assignment, STATE 12425),
    (sym_pattern_list, STATE 8578), (sym_yield, STATE 12425), (sym_attribute, STATE 6836),
    (sym_subscript, STATE 6838), (sym_call, STATE 6845), (sym_mlir_type, STATE 7017),
    (sym_list, STATE 7017), (sym_set, STATE 7017), (sym_tuple, STATE 7017),
    (sym_dictionary, STATE 7017), (sym_struct_literal, STATE 7017),
    (sym_list_comprehension, STATE 7017), (sym_dictionary_comprehension, STATE 7017),
    (sym_set_comprehension, STATE 7017), (sym_generator_expression, STATE 7017),
    (sym_parenthesized_expression, STATE 7017), (sym_conditional_expression, STATE 7969),
    (sym_concatenated_string, STATE 7017), (sym_string, STATE 6751), (sym_await, STATE 7017),
    (aux_sym_module_repeat1, STATE 927), (aux_sym_decorated_definition_repeat1, STATE 3670),
    (sym_identifier, ACTIONS 9), (anon_sym_import, ACTIONS 11), (anon_sym_from, ACTIONS 13),
    (anon_sym_LPAREN, ACTIONS 15), (anon_sym_STAR, ACTIONS 17), (anon_sym_print, ACTIONS 19),
    (anon_sym_comptime, ACTIONS 99), (anon_sym_assert, ACTIONS 23),
    (anon_sym___comptime_assert, ACTIONS 25), (anon_sym_return, ACTIONS 27),
    (anon_sym_del, ACTIONS 29), (anon_sym_raise, ACTIONS 31), (anon_sym_pass, ACTIONS 33),
    (anon_sym_break, ACTIONS 35), (anon_sym_continue, ACTIONS 37),
    (anon_sym___extension, ACTIONS 101), (anon_sym___mlir_region, ACTIONS 103),
    (anon_sym_if, ACTIONS 105), (anon_sym_match, ACTIONS 107), (anon_sym_async, ACTIONS 109),
    (anon_sym_for, ACTIONS 111), (anon_sym_while, ACTIONS 113), (anon_sym_try, ACTIONS 115),
    (anon_sym_with, ACTIONS 117), (anon_sym_def, ACTIONS 119), (anon_sym_fn, ACTIONS 119),
    (anon_sym_LBRACK, ACTIONS 59), (anon_sym_LBRACE, ACTIONS 61), (anon_sym_global, ACTIONS 63),
    (anon_sym_nonlocal, ACTIONS 65), (anon_sym_exec, ACTIONS 67), (anon_sym_type, ACTIONS 69),
    (anon_sym_class, ACTIONS 121), (anon_sym_struct, ACTIONS 121), (anon_sym_mut, ACTIONS 73),
    (anon_sym_out, ACTIONS 73), (anon_sym_trait, ACTIONS 123), (anon_sym_AT, ACTIONS 77),
    (anon_sym_DASH, ACTIONS 79), (anon_sym_PLUS, ACTIONS 79), (anon_sym_ref, ACTIONS 81),
    (anon_sym_var, ACTIONS 81), (anon_sym_not, ACTIONS 83), (anon_sym_TILDE, ACTIONS 79),
    (anon_sym_lambda, ACTIONS 85), (anon_sym_yield, ACTIONS 87), (sym_ellipsis, ACTIONS 89),
    (anon_sym___mlir_type, ACTIONS 91), (sym_integer, ACTIONS 93), (sym_float, ACTIONS 89),
    (anon_sym_await, ACTIONS 95), (sym_true, ACTIONS 93), (sym_false, ACTIONS 93),
    (sym_none, ACTIONS 93), (sym_comment, ACTIONS 3), (sym_line_continuation, ACTIONS 3),
    (sym__dedent, ACTIONS 125), (sym_string_start, ACTIONS 97)]"

definition parse_table_706 :: "(nat \<times> nat) list" where "parse_table_706 = [
    (sym__statement, STATE 927), (sym__simple_statements, STATE 927),
    (sym_import_statement, STATE 11814), (sym_future_import_statement, STATE 11814),
    (sym_import_from_statement, STATE 11814), (sym_print_statement, STATE 11814),
    (sym_assert_statement, STATE 11814), (sym_comptime_assert_statement, STATE 11814),
    (sym_expression_statement, STATE 11814), (sym_tuple_expression, STATE 12425),
    (sym_named_expression, STATE 7969), (sym__named_expression_lhs, STATE 12752),
    (sym_return_statement, STATE 11814), (sym_delete_statement, STATE 11814),
    (sym_raise_statement, STATE 11814), (sym_pass_statement, STATE 11814),
    (sym_break_statement, STATE 11814), (sym_continue_statement, STATE 11814),
    (sym_extension_definition, STATE 927), (sym_mlir_region, STATE 927),
    (sym_comptime_statement, STATE 927), (sym_if_statement, STATE 927),
    (sym_match_statement, STATE 927), (sym_for_statement, STATE 927),
    (sym_while_statement, STATE 927), (sym_try_statement, STATE 927),
    (sym_with_statement, STATE 927), (sym_function_definition, STATE 927),
    (sym_global_statement, STATE 11814), (sym_nonlocal_statement, STATE 11814),
    (sym_exec_statement, STATE 11814), (sym_type_alias_statement, STATE 11814),
    (sym_parameterized_alias_statement, STATE 11814), (sym_class_definition, STATE 927),
    (sym_trait_definition, STATE 927), (sym_decorated_definition, STATE 927),
    (sym_decorator, STATE 3670), (sym_block, STATE 6104), (sym_pattern, STATE 8086),
    (sym_tuple_pattern, STATE 8101), (sym_list_pattern, STATE 8101),
    (sym_list_splat_pattern, STATE 6819), (sym_as_pattern, STATE 7969),
    (sym_expression, STATE 9883), (sym_primary_expression, STATE 7326),
    (sym_comptime_expression, STATE 7017), (sym_transfer_expression, STATE 7017),
    (sym_not_operator, STATE 7969), (sym_boolean_operator, STATE 7969),
    (sym_binary_operator, STATE 7017), (sym_unary_operator, STATE 7017),
    (sym_comparison_operator, STATE 7969), (sym_lambda, STATE 7969),
    (sym_assignment, STATE 12425), (sym_augmented_assignment, STATE 12425),
    (sym_pattern_list, STATE 8578), (sym_yield, STATE 12425), (sym_attribute, STATE 6836),
    (sym_subscript, STATE 6838), (sym_call, STATE 6845), (sym_mlir_type, STATE 7017),
    (sym_list, STATE 7017), (sym_set, STATE 7017), (sym_tuple, STATE 7017),
    (sym_dictionary, STATE 7017), (sym_struct_literal, STATE 7017),
    (sym_list_comprehension, STATE 7017), (sym_dictionary_comprehension, STATE 7017),
    (sym_set_comprehension, STATE 7017), (sym_generator_expression, STATE 7017),
    (sym_parenthesized_expression, STATE 7017), (sym_conditional_expression, STATE 7969),
    (sym_concatenated_string, STATE 7017), (sym_string, STATE 6751), (sym_await, STATE 7017),
    (aux_sym_module_repeat1, STATE 927), (aux_sym_decorated_definition_repeat1, STATE 3670),
    (sym_identifier, ACTIONS 9), (anon_sym_import, ACTIONS 11), (anon_sym_from, ACTIONS 13),
    (anon_sym_LPAREN, ACTIONS 15), (anon_sym_STAR, ACTIONS 17), (anon_sym_print, ACTIONS 19),
    (anon_sym_comptime, ACTIONS 99), (anon_sym_assert, ACTIONS 23),
    (anon_sym___comptime_assert, ACTIONS 25), (anon_sym_return, ACTIONS 27),
    (anon_sym_del, ACTIONS 29), (anon_sym_raise, ACTIONS 31), (anon_sym_pass, ACTIONS 33),
    (anon_sym_break, ACTIONS 35), (anon_sym_continue, ACTIONS 37),
    (anon_sym___extension, ACTIONS 101), (anon_sym___mlir_region, ACTIONS 103),
    (anon_sym_if, ACTIONS 105), (anon_sym_match, ACTIONS 107), (anon_sym_async, ACTIONS 109),
    (anon_sym_for, ACTIONS 111), (anon_sym_while, ACTIONS 113), (anon_sym_try, ACTIONS 115),
    (anon_sym_with, ACTIONS 117), (anon_sym_def, ACTIONS 119), (anon_sym_fn, ACTIONS 119),
    (anon_sym_LBRACK, ACTIONS 59), (anon_sym_LBRACE, ACTIONS 61), (anon_sym_global, ACTIONS 63),
    (anon_sym_nonlocal, ACTIONS 65), (anon_sym_exec, ACTIONS 67), (anon_sym_type, ACTIONS 69),
    (anon_sym_class, ACTIONS 121), (anon_sym_struct, ACTIONS 121), (anon_sym_mut, ACTIONS 73),
    (anon_sym_out, ACTIONS 73), (anon_sym_trait, ACTIONS 123), (anon_sym_AT, ACTIONS 77),
    (anon_sym_DASH, ACTIONS 79), (anon_sym_PLUS, ACTIONS 79), (anon_sym_ref, ACTIONS 81),
    (anon_sym_var, ACTIONS 81), (anon_sym_not, ACTIONS 83), (anon_sym_TILDE, ACTIONS 79),
    (anon_sym_lambda, ACTIONS 85), (anon_sym_yield, ACTIONS 87), (sym_ellipsis, ACTIONS 89),
    (anon_sym___mlir_type, ACTIONS 91), (sym_integer, ACTIONS 93), (sym_float, ACTIONS 89),
    (anon_sym_await, ACTIONS 95), (sym_true, ACTIONS 93), (sym_false, ACTIONS 93),
    (sym_none, ACTIONS 93), (sym_comment, ACTIONS 3), (sym_line_continuation, ACTIONS 3),
    (sym__dedent, ACTIONS 125), (sym_string_start, ACTIONS 97)]"

definition parse_table_707 :: "(nat \<times> nat) list" where "parse_table_707 = [
    (sym__statement, STATE 927), (sym__simple_statements, STATE 927),
    (sym_import_statement, STATE 11814), (sym_future_import_statement, STATE 11814),
    (sym_import_from_statement, STATE 11814), (sym_print_statement, STATE 11814),
    (sym_assert_statement, STATE 11814), (sym_comptime_assert_statement, STATE 11814),
    (sym_expression_statement, STATE 11814), (sym_tuple_expression, STATE 12425),
    (sym_named_expression, STATE 7969), (sym__named_expression_lhs, STATE 12752),
    (sym_return_statement, STATE 11814), (sym_delete_statement, STATE 11814),
    (sym_raise_statement, STATE 11814), (sym_pass_statement, STATE 11814),
    (sym_break_statement, STATE 11814), (sym_continue_statement, STATE 11814),
    (sym_extension_definition, STATE 927), (sym_mlir_region, STATE 927),
    (sym_comptime_statement, STATE 927), (sym_if_statement, STATE 927),
    (sym_match_statement, STATE 927), (sym_for_statement, STATE 927),
    (sym_while_statement, STATE 927), (sym_try_statement, STATE 927),
    (sym_with_statement, STATE 927), (sym_function_definition, STATE 927),
    (sym_global_statement, STATE 11814), (sym_nonlocal_statement, STATE 11814),
    (sym_exec_statement, STATE 11814), (sym_type_alias_statement, STATE 11814),
    (sym_parameterized_alias_statement, STATE 11814), (sym_class_definition, STATE 927),
    (sym_trait_definition, STATE 927), (sym_decorated_definition, STATE 927),
    (sym_decorator, STATE 3670), (sym_block, STATE 6114), (sym_pattern, STATE 8086),
    (sym_tuple_pattern, STATE 8101), (sym_list_pattern, STATE 8101),
    (sym_list_splat_pattern, STATE 6819), (sym_as_pattern, STATE 7969),
    (sym_expression, STATE 9883), (sym_primary_expression, STATE 7326),
    (sym_comptime_expression, STATE 7017), (sym_transfer_expression, STATE 7017),
    (sym_not_operator, STATE 7969), (sym_boolean_operator, STATE 7969),
    (sym_binary_operator, STATE 7017), (sym_unary_operator, STATE 7017),
    (sym_comparison_operator, STATE 7969), (sym_lambda, STATE 7969),
    (sym_assignment, STATE 12425), (sym_augmented_assignment, STATE 12425),
    (sym_pattern_list, STATE 8578), (sym_yield, STATE 12425), (sym_attribute, STATE 6836),
    (sym_subscript, STATE 6838), (sym_call, STATE 6845), (sym_mlir_type, STATE 7017),
    (sym_list, STATE 7017), (sym_set, STATE 7017), (sym_tuple, STATE 7017),
    (sym_dictionary, STATE 7017), (sym_struct_literal, STATE 7017),
    (sym_list_comprehension, STATE 7017), (sym_dictionary_comprehension, STATE 7017),
    (sym_set_comprehension, STATE 7017), (sym_generator_expression, STATE 7017),
    (sym_parenthesized_expression, STATE 7017), (sym_conditional_expression, STATE 7969),
    (sym_concatenated_string, STATE 7017), (sym_string, STATE 6751), (sym_await, STATE 7017),
    (aux_sym_module_repeat1, STATE 927), (aux_sym_decorated_definition_repeat1, STATE 3670),
    (sym_identifier, ACTIONS 9), (anon_sym_import, ACTIONS 11), (anon_sym_from, ACTIONS 13),
    (anon_sym_LPAREN, ACTIONS 15), (anon_sym_STAR, ACTIONS 17), (anon_sym_print, ACTIONS 19),
    (anon_sym_comptime, ACTIONS 99), (anon_sym_assert, ACTIONS 23),
    (anon_sym___comptime_assert, ACTIONS 25), (anon_sym_return, ACTIONS 27),
    (anon_sym_del, ACTIONS 29), (anon_sym_raise, ACTIONS 31), (anon_sym_pass, ACTIONS 33),
    (anon_sym_break, ACTIONS 35), (anon_sym_continue, ACTIONS 37),
    (anon_sym___extension, ACTIONS 101), (anon_sym___mlir_region, ACTIONS 103),
    (anon_sym_if, ACTIONS 105), (anon_sym_match, ACTIONS 107), (anon_sym_async, ACTIONS 109),
    (anon_sym_for, ACTIONS 111), (anon_sym_while, ACTIONS 113), (anon_sym_try, ACTIONS 115),
    (anon_sym_with, ACTIONS 117), (anon_sym_def, ACTIONS 119), (anon_sym_fn, ACTIONS 119),
    (anon_sym_LBRACK, ACTIONS 59), (anon_sym_LBRACE, ACTIONS 61), (anon_sym_global, ACTIONS 63),
    (anon_sym_nonlocal, ACTIONS 65), (anon_sym_exec, ACTIONS 67), (anon_sym_type, ACTIONS 69),
    (anon_sym_class, ACTIONS 121), (anon_sym_struct, ACTIONS 121), (anon_sym_mut, ACTIONS 73),
    (anon_sym_out, ACTIONS 73), (anon_sym_trait, ACTIONS 123), (anon_sym_AT, ACTIONS 77),
    (anon_sym_DASH, ACTIONS 79), (anon_sym_PLUS, ACTIONS 79), (anon_sym_ref, ACTIONS 81),
    (anon_sym_var, ACTIONS 81), (anon_sym_not, ACTIONS 83), (anon_sym_TILDE, ACTIONS 79),
    (anon_sym_lambda, ACTIONS 85), (anon_sym_yield, ACTIONS 87), (sym_ellipsis, ACTIONS 89),
    (anon_sym___mlir_type, ACTIONS 91), (sym_integer, ACTIONS 93), (sym_float, ACTIONS 89),
    (anon_sym_await, ACTIONS 95), (sym_true, ACTIONS 93), (sym_false, ACTIONS 93),
    (sym_none, ACTIONS 93), (sym_comment, ACTIONS 3), (sym_line_continuation, ACTIONS 3),
    (sym__dedent, ACTIONS 125), (sym_string_start, ACTIONS 97)]"

definition parse_table_708 :: "(nat \<times> nat) list" where "parse_table_708 = [
    (sym__statement, STATE 927), (sym__simple_statements, STATE 927),
    (sym_import_statement, STATE 11814), (sym_future_import_statement, STATE 11814),
    (sym_import_from_statement, STATE 11814), (sym_print_statement, STATE 11814),
    (sym_assert_statement, STATE 11814), (sym_comptime_assert_statement, STATE 11814),
    (sym_expression_statement, STATE 11814), (sym_tuple_expression, STATE 12425),
    (sym_named_expression, STATE 7969), (sym__named_expression_lhs, STATE 12752),
    (sym_return_statement, STATE 11814), (sym_delete_statement, STATE 11814),
    (sym_raise_statement, STATE 11814), (sym_pass_statement, STATE 11814),
    (sym_break_statement, STATE 11814), (sym_continue_statement, STATE 11814),
    (sym_extension_definition, STATE 927), (sym_mlir_region, STATE 927),
    (sym_comptime_statement, STATE 927), (sym_if_statement, STATE 927),
    (sym_match_statement, STATE 927), (sym_for_statement, STATE 927),
    (sym_while_statement, STATE 927), (sym_try_statement, STATE 927),
    (sym_with_statement, STATE 927), (sym_function_definition, STATE 927),
    (sym_global_statement, STATE 11814), (sym_nonlocal_statement, STATE 11814),
    (sym_exec_statement, STATE 11814), (sym_type_alias_statement, STATE 11814),
    (sym_parameterized_alias_statement, STATE 11814), (sym_class_definition, STATE 927),
    (sym_trait_definition, STATE 927), (sym_decorated_definition, STATE 927),
    (sym_decorator, STATE 3670), (sym_block, STATE 6124), (sym_pattern, STATE 8086),
    (sym_tuple_pattern, STATE 8101), (sym_list_pattern, STATE 8101),
    (sym_list_splat_pattern, STATE 6819), (sym_as_pattern, STATE 7969),
    (sym_expression, STATE 9883), (sym_primary_expression, STATE 7326),
    (sym_comptime_expression, STATE 7017), (sym_transfer_expression, STATE 7017),
    (sym_not_operator, STATE 7969), (sym_boolean_operator, STATE 7969),
    (sym_binary_operator, STATE 7017), (sym_unary_operator, STATE 7017),
    (sym_comparison_operator, STATE 7969), (sym_lambda, STATE 7969),
    (sym_assignment, STATE 12425), (sym_augmented_assignment, STATE 12425),
    (sym_pattern_list, STATE 8578), (sym_yield, STATE 12425), (sym_attribute, STATE 6836),
    (sym_subscript, STATE 6838), (sym_call, STATE 6845), (sym_mlir_type, STATE 7017),
    (sym_list, STATE 7017), (sym_set, STATE 7017), (sym_tuple, STATE 7017),
    (sym_dictionary, STATE 7017), (sym_struct_literal, STATE 7017),
    (sym_list_comprehension, STATE 7017), (sym_dictionary_comprehension, STATE 7017),
    (sym_set_comprehension, STATE 7017), (sym_generator_expression, STATE 7017),
    (sym_parenthesized_expression, STATE 7017), (sym_conditional_expression, STATE 7969),
    (sym_concatenated_string, STATE 7017), (sym_string, STATE 6751), (sym_await, STATE 7017),
    (aux_sym_module_repeat1, STATE 927), (aux_sym_decorated_definition_repeat1, STATE 3670),
    (sym_identifier, ACTIONS 9), (anon_sym_import, ACTIONS 11), (anon_sym_from, ACTIONS 13),
    (anon_sym_LPAREN, ACTIONS 15), (anon_sym_STAR, ACTIONS 17), (anon_sym_print, ACTIONS 19),
    (anon_sym_comptime, ACTIONS 99), (anon_sym_assert, ACTIONS 23),
    (anon_sym___comptime_assert, ACTIONS 25), (anon_sym_return, ACTIONS 27),
    (anon_sym_del, ACTIONS 29), (anon_sym_raise, ACTIONS 31), (anon_sym_pass, ACTIONS 33),
    (anon_sym_break, ACTIONS 35), (anon_sym_continue, ACTIONS 37),
    (anon_sym___extension, ACTIONS 101), (anon_sym___mlir_region, ACTIONS 103),
    (anon_sym_if, ACTIONS 105), (anon_sym_match, ACTIONS 107), (anon_sym_async, ACTIONS 109),
    (anon_sym_for, ACTIONS 111), (anon_sym_while, ACTIONS 113), (anon_sym_try, ACTIONS 115),
    (anon_sym_with, ACTIONS 117), (anon_sym_def, ACTIONS 119), (anon_sym_fn, ACTIONS 119),
    (anon_sym_LBRACK, ACTIONS 59), (anon_sym_LBRACE, ACTIONS 61), (anon_sym_global, ACTIONS 63),
    (anon_sym_nonlocal, ACTIONS 65), (anon_sym_exec, ACTIONS 67), (anon_sym_type, ACTIONS 69),
    (anon_sym_class, ACTIONS 121), (anon_sym_struct, ACTIONS 121), (anon_sym_mut, ACTIONS 73),
    (anon_sym_out, ACTIONS 73), (anon_sym_trait, ACTIONS 123), (anon_sym_AT, ACTIONS 77),
    (anon_sym_DASH, ACTIONS 79), (anon_sym_PLUS, ACTIONS 79), (anon_sym_ref, ACTIONS 81),
    (anon_sym_var, ACTIONS 81), (anon_sym_not, ACTIONS 83), (anon_sym_TILDE, ACTIONS 79),
    (anon_sym_lambda, ACTIONS 85), (anon_sym_yield, ACTIONS 87), (sym_ellipsis, ACTIONS 89),
    (anon_sym___mlir_type, ACTIONS 91), (sym_integer, ACTIONS 93), (sym_float, ACTIONS 89),
    (anon_sym_await, ACTIONS 95), (sym_true, ACTIONS 93), (sym_false, ACTIONS 93),
    (sym_none, ACTIONS 93), (sym_comment, ACTIONS 3), (sym_line_continuation, ACTIONS 3),
    (sym__dedent, ACTIONS 125), (sym_string_start, ACTIONS 97)]"

definition parse_table_709 :: "(nat \<times> nat) list" where "parse_table_709 = [
    (sym__statement, STATE 927), (sym__simple_statements, STATE 927),
    (sym_import_statement, STATE 11814), (sym_future_import_statement, STATE 11814),
    (sym_import_from_statement, STATE 11814), (sym_print_statement, STATE 11814),
    (sym_assert_statement, STATE 11814), (sym_comptime_assert_statement, STATE 11814),
    (sym_expression_statement, STATE 11814), (sym_tuple_expression, STATE 12425),
    (sym_named_expression, STATE 7969), (sym__named_expression_lhs, STATE 12752),
    (sym_return_statement, STATE 11814), (sym_delete_statement, STATE 11814),
    (sym_raise_statement, STATE 11814), (sym_pass_statement, STATE 11814),
    (sym_break_statement, STATE 11814), (sym_continue_statement, STATE 11814),
    (sym_extension_definition, STATE 927), (sym_mlir_region, STATE 927),
    (sym_comptime_statement, STATE 927), (sym_if_statement, STATE 927),
    (sym_match_statement, STATE 927), (sym_for_statement, STATE 927),
    (sym_while_statement, STATE 927), (sym_try_statement, STATE 927),
    (sym_with_statement, STATE 927), (sym_function_definition, STATE 927),
    (sym_global_statement, STATE 11814), (sym_nonlocal_statement, STATE 11814),
    (sym_exec_statement, STATE 11814), (sym_type_alias_statement, STATE 11814),
    (sym_parameterized_alias_statement, STATE 11814), (sym_class_definition, STATE 927),
    (sym_trait_definition, STATE 927), (sym_decorated_definition, STATE 927),
    (sym_decorator, STATE 3670), (sym_block, STATE 6126), (sym_pattern, STATE 8086),
    (sym_tuple_pattern, STATE 8101), (sym_list_pattern, STATE 8101),
    (sym_list_splat_pattern, STATE 6819), (sym_as_pattern, STATE 7969),
    (sym_expression, STATE 9883), (sym_primary_expression, STATE 7326),
    (sym_comptime_expression, STATE 7017), (sym_transfer_expression, STATE 7017),
    (sym_not_operator, STATE 7969), (sym_boolean_operator, STATE 7969),
    (sym_binary_operator, STATE 7017), (sym_unary_operator, STATE 7017),
    (sym_comparison_operator, STATE 7969), (sym_lambda, STATE 7969),
    (sym_assignment, STATE 12425), (sym_augmented_assignment, STATE 12425),
    (sym_pattern_list, STATE 8578), (sym_yield, STATE 12425), (sym_attribute, STATE 6836),
    (sym_subscript, STATE 6838), (sym_call, STATE 6845), (sym_mlir_type, STATE 7017),
    (sym_list, STATE 7017), (sym_set, STATE 7017), (sym_tuple, STATE 7017),
    (sym_dictionary, STATE 7017), (sym_struct_literal, STATE 7017),
    (sym_list_comprehension, STATE 7017), (sym_dictionary_comprehension, STATE 7017),
    (sym_set_comprehension, STATE 7017), (sym_generator_expression, STATE 7017),
    (sym_parenthesized_expression, STATE 7017), (sym_conditional_expression, STATE 7969),
    (sym_concatenated_string, STATE 7017), (sym_string, STATE 6751), (sym_await, STATE 7017),
    (aux_sym_module_repeat1, STATE 927), (aux_sym_decorated_definition_repeat1, STATE 3670),
    (sym_identifier, ACTIONS 9), (anon_sym_import, ACTIONS 11), (anon_sym_from, ACTIONS 13),
    (anon_sym_LPAREN, ACTIONS 15), (anon_sym_STAR, ACTIONS 17), (anon_sym_print, ACTIONS 19),
    (anon_sym_comptime, ACTIONS 99), (anon_sym_assert, ACTIONS 23),
    (anon_sym___comptime_assert, ACTIONS 25), (anon_sym_return, ACTIONS 27),
    (anon_sym_del, ACTIONS 29), (anon_sym_raise, ACTIONS 31), (anon_sym_pass, ACTIONS 33),
    (anon_sym_break, ACTIONS 35), (anon_sym_continue, ACTIONS 37),
    (anon_sym___extension, ACTIONS 101), (anon_sym___mlir_region, ACTIONS 103),
    (anon_sym_if, ACTIONS 105), (anon_sym_match, ACTIONS 107), (anon_sym_async, ACTIONS 109),
    (anon_sym_for, ACTIONS 111), (anon_sym_while, ACTIONS 113), (anon_sym_try, ACTIONS 115),
    (anon_sym_with, ACTIONS 117), (anon_sym_def, ACTIONS 119), (anon_sym_fn, ACTIONS 119),
    (anon_sym_LBRACK, ACTIONS 59), (anon_sym_LBRACE, ACTIONS 61), (anon_sym_global, ACTIONS 63),
    (anon_sym_nonlocal, ACTIONS 65), (anon_sym_exec, ACTIONS 67), (anon_sym_type, ACTIONS 69),
    (anon_sym_class, ACTIONS 121), (anon_sym_struct, ACTIONS 121), (anon_sym_mut, ACTIONS 73),
    (anon_sym_out, ACTIONS 73), (anon_sym_trait, ACTIONS 123), (anon_sym_AT, ACTIONS 77),
    (anon_sym_DASH, ACTIONS 79), (anon_sym_PLUS, ACTIONS 79), (anon_sym_ref, ACTIONS 81),
    (anon_sym_var, ACTIONS 81), (anon_sym_not, ACTIONS 83), (anon_sym_TILDE, ACTIONS 79),
    (anon_sym_lambda, ACTIONS 85), (anon_sym_yield, ACTIONS 87), (sym_ellipsis, ACTIONS 89),
    (anon_sym___mlir_type, ACTIONS 91), (sym_integer, ACTIONS 93), (sym_float, ACTIONS 89),
    (anon_sym_await, ACTIONS 95), (sym_true, ACTIONS 93), (sym_false, ACTIONS 93),
    (sym_none, ACTIONS 93), (sym_comment, ACTIONS 3), (sym_line_continuation, ACTIONS 3),
    (sym__dedent, ACTIONS 125), (sym_string_start, ACTIONS 97)]"

definition parse_table_710 :: "(nat \<times> nat) list" where "parse_table_710 = [
    (sym__statement, STATE 927), (sym__simple_statements, STATE 927),
    (sym_import_statement, STATE 11814), (sym_future_import_statement, STATE 11814),
    (sym_import_from_statement, STATE 11814), (sym_print_statement, STATE 11814),
    (sym_assert_statement, STATE 11814), (sym_comptime_assert_statement, STATE 11814),
    (sym_expression_statement, STATE 11814), (sym_tuple_expression, STATE 12425),
    (sym_named_expression, STATE 7969), (sym__named_expression_lhs, STATE 12752),
    (sym_return_statement, STATE 11814), (sym_delete_statement, STATE 11814),
    (sym_raise_statement, STATE 11814), (sym_pass_statement, STATE 11814),
    (sym_break_statement, STATE 11814), (sym_continue_statement, STATE 11814),
    (sym_extension_definition, STATE 927), (sym_mlir_region, STATE 927),
    (sym_comptime_statement, STATE 927), (sym_if_statement, STATE 927),
    (sym_match_statement, STATE 927), (sym_for_statement, STATE 927),
    (sym_while_statement, STATE 927), (sym_try_statement, STATE 927),
    (sym_with_statement, STATE 927), (sym_function_definition, STATE 927),
    (sym_global_statement, STATE 11814), (sym_nonlocal_statement, STATE 11814),
    (sym_exec_statement, STATE 11814), (sym_type_alias_statement, STATE 11814),
    (sym_parameterized_alias_statement, STATE 11814), (sym_class_definition, STATE 927),
    (sym_trait_definition, STATE 927), (sym_decorated_definition, STATE 927),
    (sym_decorator, STATE 3670), (sym_block, STATE 6132), (sym_pattern, STATE 8086),
    (sym_tuple_pattern, STATE 8101), (sym_list_pattern, STATE 8101),
    (sym_list_splat_pattern, STATE 6819), (sym_as_pattern, STATE 7969),
    (sym_expression, STATE 9883), (sym_primary_expression, STATE 7326),
    (sym_comptime_expression, STATE 7017), (sym_transfer_expression, STATE 7017),
    (sym_not_operator, STATE 7969), (sym_boolean_operator, STATE 7969),
    (sym_binary_operator, STATE 7017), (sym_unary_operator, STATE 7017),
    (sym_comparison_operator, STATE 7969), (sym_lambda, STATE 7969),
    (sym_assignment, STATE 12425), (sym_augmented_assignment, STATE 12425),
    (sym_pattern_list, STATE 8578), (sym_yield, STATE 12425), (sym_attribute, STATE 6836),
    (sym_subscript, STATE 6838), (sym_call, STATE 6845), (sym_mlir_type, STATE 7017),
    (sym_list, STATE 7017), (sym_set, STATE 7017), (sym_tuple, STATE 7017),
    (sym_dictionary, STATE 7017), (sym_struct_literal, STATE 7017),
    (sym_list_comprehension, STATE 7017), (sym_dictionary_comprehension, STATE 7017),
    (sym_set_comprehension, STATE 7017), (sym_generator_expression, STATE 7017),
    (sym_parenthesized_expression, STATE 7017), (sym_conditional_expression, STATE 7969),
    (sym_concatenated_string, STATE 7017), (sym_string, STATE 6751), (sym_await, STATE 7017),
    (aux_sym_module_repeat1, STATE 927), (aux_sym_decorated_definition_repeat1, STATE 3670),
    (sym_identifier, ACTIONS 9), (anon_sym_import, ACTIONS 11), (anon_sym_from, ACTIONS 13),
    (anon_sym_LPAREN, ACTIONS 15), (anon_sym_STAR, ACTIONS 17), (anon_sym_print, ACTIONS 19),
    (anon_sym_comptime, ACTIONS 99), (anon_sym_assert, ACTIONS 23),
    (anon_sym___comptime_assert, ACTIONS 25), (anon_sym_return, ACTIONS 27),
    (anon_sym_del, ACTIONS 29), (anon_sym_raise, ACTIONS 31), (anon_sym_pass, ACTIONS 33),
    (anon_sym_break, ACTIONS 35), (anon_sym_continue, ACTIONS 37),
    (anon_sym___extension, ACTIONS 101), (anon_sym___mlir_region, ACTIONS 103),
    (anon_sym_if, ACTIONS 105), (anon_sym_match, ACTIONS 107), (anon_sym_async, ACTIONS 109),
    (anon_sym_for, ACTIONS 111), (anon_sym_while, ACTIONS 113), (anon_sym_try, ACTIONS 115),
    (anon_sym_with, ACTIONS 117), (anon_sym_def, ACTIONS 119), (anon_sym_fn, ACTIONS 119),
    (anon_sym_LBRACK, ACTIONS 59), (anon_sym_LBRACE, ACTIONS 61), (anon_sym_global, ACTIONS 63),
    (anon_sym_nonlocal, ACTIONS 65), (anon_sym_exec, ACTIONS 67), (anon_sym_type, ACTIONS 69),
    (anon_sym_class, ACTIONS 121), (anon_sym_struct, ACTIONS 121), (anon_sym_mut, ACTIONS 73),
    (anon_sym_out, ACTIONS 73), (anon_sym_trait, ACTIONS 123), (anon_sym_AT, ACTIONS 77),
    (anon_sym_DASH, ACTIONS 79), (anon_sym_PLUS, ACTIONS 79), (anon_sym_ref, ACTIONS 81),
    (anon_sym_var, ACTIONS 81), (anon_sym_not, ACTIONS 83), (anon_sym_TILDE, ACTIONS 79),
    (anon_sym_lambda, ACTIONS 85), (anon_sym_yield, ACTIONS 87), (sym_ellipsis, ACTIONS 89),
    (anon_sym___mlir_type, ACTIONS 91), (sym_integer, ACTIONS 93), (sym_float, ACTIONS 89),
    (anon_sym_await, ACTIONS 95), (sym_true, ACTIONS 93), (sym_false, ACTIONS 93),
    (sym_none, ACTIONS 93), (sym_comment, ACTIONS 3), (sym_line_continuation, ACTIONS 3),
    (sym__dedent, ACTIONS 125), (sym_string_start, ACTIONS 97)]"

definition parse_table_711 :: "(nat \<times> nat) list" where "parse_table_711 = [
    (sym__statement, STATE 927), (sym__simple_statements, STATE 927),
    (sym_import_statement, STATE 11814), (sym_future_import_statement, STATE 11814),
    (sym_import_from_statement, STATE 11814), (sym_print_statement, STATE 11814),
    (sym_assert_statement, STATE 11814), (sym_comptime_assert_statement, STATE 11814),
    (sym_expression_statement, STATE 11814), (sym_tuple_expression, STATE 12425),
    (sym_named_expression, STATE 7969), (sym__named_expression_lhs, STATE 12752),
    (sym_return_statement, STATE 11814), (sym_delete_statement, STATE 11814),
    (sym_raise_statement, STATE 11814), (sym_pass_statement, STATE 11814),
    (sym_break_statement, STATE 11814), (sym_continue_statement, STATE 11814),
    (sym_extension_definition, STATE 927), (sym_mlir_region, STATE 927),
    (sym_comptime_statement, STATE 927), (sym_if_statement, STATE 927),
    (sym_match_statement, STATE 927), (sym_for_statement, STATE 927),
    (sym_while_statement, STATE 927), (sym_try_statement, STATE 927),
    (sym_with_statement, STATE 927), (sym_function_definition, STATE 927),
    (sym_global_statement, STATE 11814), (sym_nonlocal_statement, STATE 11814),
    (sym_exec_statement, STATE 11814), (sym_type_alias_statement, STATE 11814),
    (sym_parameterized_alias_statement, STATE 11814), (sym_class_definition, STATE 927),
    (sym_trait_definition, STATE 927), (sym_decorated_definition, STATE 927),
    (sym_decorator, STATE 3670), (sym_block, STATE 6135), (sym_pattern, STATE 8086),
    (sym_tuple_pattern, STATE 8101), (sym_list_pattern, STATE 8101),
    (sym_list_splat_pattern, STATE 6819), (sym_as_pattern, STATE 7969),
    (sym_expression, STATE 9883), (sym_primary_expression, STATE 7326),
    (sym_comptime_expression, STATE 7017), (sym_transfer_expression, STATE 7017),
    (sym_not_operator, STATE 7969), (sym_boolean_operator, STATE 7969),
    (sym_binary_operator, STATE 7017), (sym_unary_operator, STATE 7017),
    (sym_comparison_operator, STATE 7969), (sym_lambda, STATE 7969),
    (sym_assignment, STATE 12425), (sym_augmented_assignment, STATE 12425),
    (sym_pattern_list, STATE 8578), (sym_yield, STATE 12425), (sym_attribute, STATE 6836),
    (sym_subscript, STATE 6838), (sym_call, STATE 6845), (sym_mlir_type, STATE 7017),
    (sym_list, STATE 7017), (sym_set, STATE 7017), (sym_tuple, STATE 7017),
    (sym_dictionary, STATE 7017), (sym_struct_literal, STATE 7017),
    (sym_list_comprehension, STATE 7017), (sym_dictionary_comprehension, STATE 7017),
    (sym_set_comprehension, STATE 7017), (sym_generator_expression, STATE 7017),
    (sym_parenthesized_expression, STATE 7017), (sym_conditional_expression, STATE 7969),
    (sym_concatenated_string, STATE 7017), (sym_string, STATE 6751), (sym_await, STATE 7017),
    (aux_sym_module_repeat1, STATE 927), (aux_sym_decorated_definition_repeat1, STATE 3670),
    (sym_identifier, ACTIONS 9), (anon_sym_import, ACTIONS 11), (anon_sym_from, ACTIONS 13),
    (anon_sym_LPAREN, ACTIONS 15), (anon_sym_STAR, ACTIONS 17), (anon_sym_print, ACTIONS 19),
    (anon_sym_comptime, ACTIONS 99), (anon_sym_assert, ACTIONS 23),
    (anon_sym___comptime_assert, ACTIONS 25), (anon_sym_return, ACTIONS 27),
    (anon_sym_del, ACTIONS 29), (anon_sym_raise, ACTIONS 31), (anon_sym_pass, ACTIONS 33),
    (anon_sym_break, ACTIONS 35), (anon_sym_continue, ACTIONS 37),
    (anon_sym___extension, ACTIONS 101), (anon_sym___mlir_region, ACTIONS 103),
    (anon_sym_if, ACTIONS 105), (anon_sym_match, ACTIONS 107), (anon_sym_async, ACTIONS 109),
    (anon_sym_for, ACTIONS 111), (anon_sym_while, ACTIONS 113), (anon_sym_try, ACTIONS 115),
    (anon_sym_with, ACTIONS 117), (anon_sym_def, ACTIONS 119), (anon_sym_fn, ACTIONS 119),
    (anon_sym_LBRACK, ACTIONS 59), (anon_sym_LBRACE, ACTIONS 61), (anon_sym_global, ACTIONS 63),
    (anon_sym_nonlocal, ACTIONS 65), (anon_sym_exec, ACTIONS 67), (anon_sym_type, ACTIONS 69),
    (anon_sym_class, ACTIONS 121), (anon_sym_struct, ACTIONS 121), (anon_sym_mut, ACTIONS 73),
    (anon_sym_out, ACTIONS 73), (anon_sym_trait, ACTIONS 123), (anon_sym_AT, ACTIONS 77),
    (anon_sym_DASH, ACTIONS 79), (anon_sym_PLUS, ACTIONS 79), (anon_sym_ref, ACTIONS 81),
    (anon_sym_var, ACTIONS 81), (anon_sym_not, ACTIONS 83), (anon_sym_TILDE, ACTIONS 79),
    (anon_sym_lambda, ACTIONS 85), (anon_sym_yield, ACTIONS 87), (sym_ellipsis, ACTIONS 89),
    (anon_sym___mlir_type, ACTIONS 91), (sym_integer, ACTIONS 93), (sym_float, ACTIONS 89),
    (anon_sym_await, ACTIONS 95), (sym_true, ACTIONS 93), (sym_false, ACTIONS 93),
    (sym_none, ACTIONS 93), (sym_comment, ACTIONS 3), (sym_line_continuation, ACTIONS 3),
    (sym__dedent, ACTIONS 125), (sym_string_start, ACTIONS 97)]"

definition parse_table_712 :: "(nat \<times> nat) list" where "parse_table_712 = [
    (sym__statement, STATE 927), (sym__simple_statements, STATE 927),
    (sym_import_statement, STATE 11814), (sym_future_import_statement, STATE 11814),
    (sym_import_from_statement, STATE 11814), (sym_print_statement, STATE 11814),
    (sym_assert_statement, STATE 11814), (sym_comptime_assert_statement, STATE 11814),
    (sym_expression_statement, STATE 11814), (sym_tuple_expression, STATE 12425),
    (sym_named_expression, STATE 7969), (sym__named_expression_lhs, STATE 12752),
    (sym_return_statement, STATE 11814), (sym_delete_statement, STATE 11814),
    (sym_raise_statement, STATE 11814), (sym_pass_statement, STATE 11814),
    (sym_break_statement, STATE 11814), (sym_continue_statement, STATE 11814),
    (sym_extension_definition, STATE 927), (sym_mlir_region, STATE 927),
    (sym_comptime_statement, STATE 927), (sym_if_statement, STATE 927),
    (sym_match_statement, STATE 927), (sym_for_statement, STATE 927),
    (sym_while_statement, STATE 927), (sym_try_statement, STATE 927),
    (sym_with_statement, STATE 927), (sym_function_definition, STATE 927),
    (sym_global_statement, STATE 11814), (sym_nonlocal_statement, STATE 11814),
    (sym_exec_statement, STATE 11814), (sym_type_alias_statement, STATE 11814),
    (sym_parameterized_alias_statement, STATE 11814), (sym_class_definition, STATE 927),
    (sym_trait_definition, STATE 927), (sym_decorated_definition, STATE 927),
    (sym_decorator, STATE 3670), (sym_block, STATE 6137), (sym_pattern, STATE 8086),
    (sym_tuple_pattern, STATE 8101), (sym_list_pattern, STATE 8101),
    (sym_list_splat_pattern, STATE 6819), (sym_as_pattern, STATE 7969),
    (sym_expression, STATE 9883), (sym_primary_expression, STATE 7326),
    (sym_comptime_expression, STATE 7017), (sym_transfer_expression, STATE 7017),
    (sym_not_operator, STATE 7969), (sym_boolean_operator, STATE 7969),
    (sym_binary_operator, STATE 7017), (sym_unary_operator, STATE 7017),
    (sym_comparison_operator, STATE 7969), (sym_lambda, STATE 7969),
    (sym_assignment, STATE 12425), (sym_augmented_assignment, STATE 12425),
    (sym_pattern_list, STATE 8578), (sym_yield, STATE 12425), (sym_attribute, STATE 6836),
    (sym_subscript, STATE 6838), (sym_call, STATE 6845), (sym_mlir_type, STATE 7017),
    (sym_list, STATE 7017), (sym_set, STATE 7017), (sym_tuple, STATE 7017),
    (sym_dictionary, STATE 7017), (sym_struct_literal, STATE 7017),
    (sym_list_comprehension, STATE 7017), (sym_dictionary_comprehension, STATE 7017),
    (sym_set_comprehension, STATE 7017), (sym_generator_expression, STATE 7017),
    (sym_parenthesized_expression, STATE 7017), (sym_conditional_expression, STATE 7969),
    (sym_concatenated_string, STATE 7017), (sym_string, STATE 6751), (sym_await, STATE 7017),
    (aux_sym_module_repeat1, STATE 927), (aux_sym_decorated_definition_repeat1, STATE 3670),
    (sym_identifier, ACTIONS 9), (anon_sym_import, ACTIONS 11), (anon_sym_from, ACTIONS 13),
    (anon_sym_LPAREN, ACTIONS 15), (anon_sym_STAR, ACTIONS 17), (anon_sym_print, ACTIONS 19),
    (anon_sym_comptime, ACTIONS 99), (anon_sym_assert, ACTIONS 23),
    (anon_sym___comptime_assert, ACTIONS 25), (anon_sym_return, ACTIONS 27),
    (anon_sym_del, ACTIONS 29), (anon_sym_raise, ACTIONS 31), (anon_sym_pass, ACTIONS 33),
    (anon_sym_break, ACTIONS 35), (anon_sym_continue, ACTIONS 37),
    (anon_sym___extension, ACTIONS 101), (anon_sym___mlir_region, ACTIONS 103),
    (anon_sym_if, ACTIONS 105), (anon_sym_match, ACTIONS 107), (anon_sym_async, ACTIONS 109),
    (anon_sym_for, ACTIONS 111), (anon_sym_while, ACTIONS 113), (anon_sym_try, ACTIONS 115),
    (anon_sym_with, ACTIONS 117), (anon_sym_def, ACTIONS 119), (anon_sym_fn, ACTIONS 119),
    (anon_sym_LBRACK, ACTIONS 59), (anon_sym_LBRACE, ACTIONS 61), (anon_sym_global, ACTIONS 63),
    (anon_sym_nonlocal, ACTIONS 65), (anon_sym_exec, ACTIONS 67), (anon_sym_type, ACTIONS 69),
    (anon_sym_class, ACTIONS 121), (anon_sym_struct, ACTIONS 121), (anon_sym_mut, ACTIONS 73),
    (anon_sym_out, ACTIONS 73), (anon_sym_trait, ACTIONS 123), (anon_sym_AT, ACTIONS 77),
    (anon_sym_DASH, ACTIONS 79), (anon_sym_PLUS, ACTIONS 79), (anon_sym_ref, ACTIONS 81),
    (anon_sym_var, ACTIONS 81), (anon_sym_not, ACTIONS 83), (anon_sym_TILDE, ACTIONS 79),
    (anon_sym_lambda, ACTIONS 85), (anon_sym_yield, ACTIONS 87), (sym_ellipsis, ACTIONS 89),
    (anon_sym___mlir_type, ACTIONS 91), (sym_integer, ACTIONS 93), (sym_float, ACTIONS 89),
    (anon_sym_await, ACTIONS 95), (sym_true, ACTIONS 93), (sym_false, ACTIONS 93),
    (sym_none, ACTIONS 93), (sym_comment, ACTIONS 3), (sym_line_continuation, ACTIONS 3),
    (sym__dedent, ACTIONS 125), (sym_string_start, ACTIONS 97)]"

definition parse_table_713 :: "(nat \<times> nat) list" where "parse_table_713 = [
    (sym__statement, STATE 927), (sym__simple_statements, STATE 927),
    (sym_import_statement, STATE 11814), (sym_future_import_statement, STATE 11814),
    (sym_import_from_statement, STATE 11814), (sym_print_statement, STATE 11814),
    (sym_assert_statement, STATE 11814), (sym_comptime_assert_statement, STATE 11814),
    (sym_expression_statement, STATE 11814), (sym_tuple_expression, STATE 12425),
    (sym_named_expression, STATE 7969), (sym__named_expression_lhs, STATE 12752),
    (sym_return_statement, STATE 11814), (sym_delete_statement, STATE 11814),
    (sym_raise_statement, STATE 11814), (sym_pass_statement, STATE 11814),
    (sym_break_statement, STATE 11814), (sym_continue_statement, STATE 11814),
    (sym_extension_definition, STATE 927), (sym_mlir_region, STATE 927),
    (sym_comptime_statement, STATE 927), (sym_if_statement, STATE 927),
    (sym_match_statement, STATE 927), (sym_for_statement, STATE 927),
    (sym_while_statement, STATE 927), (sym_try_statement, STATE 927),
    (sym_with_statement, STATE 927), (sym_function_definition, STATE 927),
    (sym_global_statement, STATE 11814), (sym_nonlocal_statement, STATE 11814),
    (sym_exec_statement, STATE 11814), (sym_type_alias_statement, STATE 11814),
    (sym_parameterized_alias_statement, STATE 11814), (sym_class_definition, STATE 927),
    (sym_trait_definition, STATE 927), (sym_decorated_definition, STATE 927),
    (sym_decorator, STATE 3670), (sym_block, STATE 6142), (sym_pattern, STATE 8086),
    (sym_tuple_pattern, STATE 8101), (sym_list_pattern, STATE 8101),
    (sym_list_splat_pattern, STATE 6819), (sym_as_pattern, STATE 7969),
    (sym_expression, STATE 9883), (sym_primary_expression, STATE 7326),
    (sym_comptime_expression, STATE 7017), (sym_transfer_expression, STATE 7017),
    (sym_not_operator, STATE 7969), (sym_boolean_operator, STATE 7969),
    (sym_binary_operator, STATE 7017), (sym_unary_operator, STATE 7017),
    (sym_comparison_operator, STATE 7969), (sym_lambda, STATE 7969),
    (sym_assignment, STATE 12425), (sym_augmented_assignment, STATE 12425),
    (sym_pattern_list, STATE 8578), (sym_yield, STATE 12425), (sym_attribute, STATE 6836),
    (sym_subscript, STATE 6838), (sym_call, STATE 6845), (sym_mlir_type, STATE 7017),
    (sym_list, STATE 7017), (sym_set, STATE 7017), (sym_tuple, STATE 7017),
    (sym_dictionary, STATE 7017), (sym_struct_literal, STATE 7017),
    (sym_list_comprehension, STATE 7017), (sym_dictionary_comprehension, STATE 7017),
    (sym_set_comprehension, STATE 7017), (sym_generator_expression, STATE 7017),
    (sym_parenthesized_expression, STATE 7017), (sym_conditional_expression, STATE 7969),
    (sym_concatenated_string, STATE 7017), (sym_string, STATE 6751), (sym_await, STATE 7017),
    (aux_sym_module_repeat1, STATE 927), (aux_sym_decorated_definition_repeat1, STATE 3670),
    (sym_identifier, ACTIONS 9), (anon_sym_import, ACTIONS 11), (anon_sym_from, ACTIONS 13),
    (anon_sym_LPAREN, ACTIONS 15), (anon_sym_STAR, ACTIONS 17), (anon_sym_print, ACTIONS 19),
    (anon_sym_comptime, ACTIONS 99), (anon_sym_assert, ACTIONS 23),
    (anon_sym___comptime_assert, ACTIONS 25), (anon_sym_return, ACTIONS 27),
    (anon_sym_del, ACTIONS 29), (anon_sym_raise, ACTIONS 31), (anon_sym_pass, ACTIONS 33),
    (anon_sym_break, ACTIONS 35), (anon_sym_continue, ACTIONS 37),
    (anon_sym___extension, ACTIONS 101), (anon_sym___mlir_region, ACTIONS 103),
    (anon_sym_if, ACTIONS 105), (anon_sym_match, ACTIONS 107), (anon_sym_async, ACTIONS 109),
    (anon_sym_for, ACTIONS 111), (anon_sym_while, ACTIONS 113), (anon_sym_try, ACTIONS 115),
    (anon_sym_with, ACTIONS 117), (anon_sym_def, ACTIONS 119), (anon_sym_fn, ACTIONS 119),
    (anon_sym_LBRACK, ACTIONS 59), (anon_sym_LBRACE, ACTIONS 61), (anon_sym_global, ACTIONS 63),
    (anon_sym_nonlocal, ACTIONS 65), (anon_sym_exec, ACTIONS 67), (anon_sym_type, ACTIONS 69),
    (anon_sym_class, ACTIONS 121), (anon_sym_struct, ACTIONS 121), (anon_sym_mut, ACTIONS 73),
    (anon_sym_out, ACTIONS 73), (anon_sym_trait, ACTIONS 123), (anon_sym_AT, ACTIONS 77),
    (anon_sym_DASH, ACTIONS 79), (anon_sym_PLUS, ACTIONS 79), (anon_sym_ref, ACTIONS 81),
    (anon_sym_var, ACTIONS 81), (anon_sym_not, ACTIONS 83), (anon_sym_TILDE, ACTIONS 79),
    (anon_sym_lambda, ACTIONS 85), (anon_sym_yield, ACTIONS 87), (sym_ellipsis, ACTIONS 89),
    (anon_sym___mlir_type, ACTIONS 91), (sym_integer, ACTIONS 93), (sym_float, ACTIONS 89),
    (anon_sym_await, ACTIONS 95), (sym_true, ACTIONS 93), (sym_false, ACTIONS 93),
    (sym_none, ACTIONS 93), (sym_comment, ACTIONS 3), (sym_line_continuation, ACTIONS 3),
    (sym__dedent, ACTIONS 125), (sym_string_start, ACTIONS 97)]"

definition parse_table_714 :: "(nat \<times> nat) list" where "parse_table_714 = [
    (sym__statement, STATE 927), (sym__simple_statements, STATE 927),
    (sym_import_statement, STATE 11814), (sym_future_import_statement, STATE 11814),
    (sym_import_from_statement, STATE 11814), (sym_print_statement, STATE 11814),
    (sym_assert_statement, STATE 11814), (sym_comptime_assert_statement, STATE 11814),
    (sym_expression_statement, STATE 11814), (sym_tuple_expression, STATE 12425),
    (sym_named_expression, STATE 7969), (sym__named_expression_lhs, STATE 12752),
    (sym_return_statement, STATE 11814), (sym_delete_statement, STATE 11814),
    (sym_raise_statement, STATE 11814), (sym_pass_statement, STATE 11814),
    (sym_break_statement, STATE 11814), (sym_continue_statement, STATE 11814),
    (sym_extension_definition, STATE 927), (sym_mlir_region, STATE 927),
    (sym_comptime_statement, STATE 927), (sym_if_statement, STATE 927),
    (sym_match_statement, STATE 927), (sym_for_statement, STATE 927),
    (sym_while_statement, STATE 927), (sym_try_statement, STATE 927),
    (sym_with_statement, STATE 927), (sym_function_definition, STATE 927),
    (sym_global_statement, STATE 11814), (sym_nonlocal_statement, STATE 11814),
    (sym_exec_statement, STATE 11814), (sym_type_alias_statement, STATE 11814),
    (sym_parameterized_alias_statement, STATE 11814), (sym_class_definition, STATE 927),
    (sym_trait_definition, STATE 927), (sym_decorated_definition, STATE 927),
    (sym_decorator, STATE 3670), (sym_block, STATE 6149), (sym_pattern, STATE 8086),
    (sym_tuple_pattern, STATE 8101), (sym_list_pattern, STATE 8101),
    (sym_list_splat_pattern, STATE 6819), (sym_as_pattern, STATE 7969),
    (sym_expression, STATE 9883), (sym_primary_expression, STATE 7326),
    (sym_comptime_expression, STATE 7017), (sym_transfer_expression, STATE 7017),
    (sym_not_operator, STATE 7969), (sym_boolean_operator, STATE 7969),
    (sym_binary_operator, STATE 7017), (sym_unary_operator, STATE 7017),
    (sym_comparison_operator, STATE 7969), (sym_lambda, STATE 7969),
    (sym_assignment, STATE 12425), (sym_augmented_assignment, STATE 12425),
    (sym_pattern_list, STATE 8578), (sym_yield, STATE 12425), (sym_attribute, STATE 6836),
    (sym_subscript, STATE 6838), (sym_call, STATE 6845), (sym_mlir_type, STATE 7017),
    (sym_list, STATE 7017), (sym_set, STATE 7017), (sym_tuple, STATE 7017),
    (sym_dictionary, STATE 7017), (sym_struct_literal, STATE 7017),
    (sym_list_comprehension, STATE 7017), (sym_dictionary_comprehension, STATE 7017),
    (sym_set_comprehension, STATE 7017), (sym_generator_expression, STATE 7017),
    (sym_parenthesized_expression, STATE 7017), (sym_conditional_expression, STATE 7969),
    (sym_concatenated_string, STATE 7017), (sym_string, STATE 6751), (sym_await, STATE 7017),
    (aux_sym_module_repeat1, STATE 927), (aux_sym_decorated_definition_repeat1, STATE 3670),
    (sym_identifier, ACTIONS 9), (anon_sym_import, ACTIONS 11), (anon_sym_from, ACTIONS 13),
    (anon_sym_LPAREN, ACTIONS 15), (anon_sym_STAR, ACTIONS 17), (anon_sym_print, ACTIONS 19),
    (anon_sym_comptime, ACTIONS 99), (anon_sym_assert, ACTIONS 23),
    (anon_sym___comptime_assert, ACTIONS 25), (anon_sym_return, ACTIONS 27),
    (anon_sym_del, ACTIONS 29), (anon_sym_raise, ACTIONS 31), (anon_sym_pass, ACTIONS 33),
    (anon_sym_break, ACTIONS 35), (anon_sym_continue, ACTIONS 37),
    (anon_sym___extension, ACTIONS 101), (anon_sym___mlir_region, ACTIONS 103),
    (anon_sym_if, ACTIONS 105), (anon_sym_match, ACTIONS 107), (anon_sym_async, ACTIONS 109),
    (anon_sym_for, ACTIONS 111), (anon_sym_while, ACTIONS 113), (anon_sym_try, ACTIONS 115),
    (anon_sym_with, ACTIONS 117), (anon_sym_def, ACTIONS 119), (anon_sym_fn, ACTIONS 119),
    (anon_sym_LBRACK, ACTIONS 59), (anon_sym_LBRACE, ACTIONS 61), (anon_sym_global, ACTIONS 63),
    (anon_sym_nonlocal, ACTIONS 65), (anon_sym_exec, ACTIONS 67), (anon_sym_type, ACTIONS 69),
    (anon_sym_class, ACTIONS 121), (anon_sym_struct, ACTIONS 121), (anon_sym_mut, ACTIONS 73),
    (anon_sym_out, ACTIONS 73), (anon_sym_trait, ACTIONS 123), (anon_sym_AT, ACTIONS 77),
    (anon_sym_DASH, ACTIONS 79), (anon_sym_PLUS, ACTIONS 79), (anon_sym_ref, ACTIONS 81),
    (anon_sym_var, ACTIONS 81), (anon_sym_not, ACTIONS 83), (anon_sym_TILDE, ACTIONS 79),
    (anon_sym_lambda, ACTIONS 85), (anon_sym_yield, ACTIONS 87), (sym_ellipsis, ACTIONS 89),
    (anon_sym___mlir_type, ACTIONS 91), (sym_integer, ACTIONS 93), (sym_float, ACTIONS 89),
    (anon_sym_await, ACTIONS 95), (sym_true, ACTIONS 93), (sym_false, ACTIONS 93),
    (sym_none, ACTIONS 93), (sym_comment, ACTIONS 3), (sym_line_continuation, ACTIONS 3),
    (sym__dedent, ACTIONS 125), (sym_string_start, ACTIONS 97)]"

definition parse_table_715 :: "(nat \<times> nat) list" where "parse_table_715 = [
    (sym__statement, STATE 927), (sym__simple_statements, STATE 927),
    (sym_import_statement, STATE 11814), (sym_future_import_statement, STATE 11814),
    (sym_import_from_statement, STATE 11814), (sym_print_statement, STATE 11814),
    (sym_assert_statement, STATE 11814), (sym_comptime_assert_statement, STATE 11814),
    (sym_expression_statement, STATE 11814), (sym_tuple_expression, STATE 12425),
    (sym_named_expression, STATE 7969), (sym__named_expression_lhs, STATE 12752),
    (sym_return_statement, STATE 11814), (sym_delete_statement, STATE 11814),
    (sym_raise_statement, STATE 11814), (sym_pass_statement, STATE 11814),
    (sym_break_statement, STATE 11814), (sym_continue_statement, STATE 11814),
    (sym_extension_definition, STATE 927), (sym_mlir_region, STATE 927),
    (sym_comptime_statement, STATE 927), (sym_if_statement, STATE 927),
    (sym_match_statement, STATE 927), (sym_for_statement, STATE 927),
    (sym_while_statement, STATE 927), (sym_try_statement, STATE 927),
    (sym_with_statement, STATE 927), (sym_function_definition, STATE 927),
    (sym_global_statement, STATE 11814), (sym_nonlocal_statement, STATE 11814),
    (sym_exec_statement, STATE 11814), (sym_type_alias_statement, STATE 11814),
    (sym_parameterized_alias_statement, STATE 11814), (sym_class_definition, STATE 927),
    (sym_trait_definition, STATE 927), (sym_decorated_definition, STATE 927),
    (sym_decorator, STATE 3670), (sym_block, STATE 6156), (sym_pattern, STATE 8086),
    (sym_tuple_pattern, STATE 8101), (sym_list_pattern, STATE 8101),
    (sym_list_splat_pattern, STATE 6819), (sym_as_pattern, STATE 7969),
    (sym_expression, STATE 9883), (sym_primary_expression, STATE 7326),
    (sym_comptime_expression, STATE 7017), (sym_transfer_expression, STATE 7017),
    (sym_not_operator, STATE 7969), (sym_boolean_operator, STATE 7969),
    (sym_binary_operator, STATE 7017), (sym_unary_operator, STATE 7017),
    (sym_comparison_operator, STATE 7969), (sym_lambda, STATE 7969),
    (sym_assignment, STATE 12425), (sym_augmented_assignment, STATE 12425),
    (sym_pattern_list, STATE 8578), (sym_yield, STATE 12425), (sym_attribute, STATE 6836),
    (sym_subscript, STATE 6838), (sym_call, STATE 6845), (sym_mlir_type, STATE 7017),
    (sym_list, STATE 7017), (sym_set, STATE 7017), (sym_tuple, STATE 7017),
    (sym_dictionary, STATE 7017), (sym_struct_literal, STATE 7017),
    (sym_list_comprehension, STATE 7017), (sym_dictionary_comprehension, STATE 7017),
    (sym_set_comprehension, STATE 7017), (sym_generator_expression, STATE 7017),
    (sym_parenthesized_expression, STATE 7017), (sym_conditional_expression, STATE 7969),
    (sym_concatenated_string, STATE 7017), (sym_string, STATE 6751), (sym_await, STATE 7017),
    (aux_sym_module_repeat1, STATE 927), (aux_sym_decorated_definition_repeat1, STATE 3670),
    (sym_identifier, ACTIONS 9), (anon_sym_import, ACTIONS 11), (anon_sym_from, ACTIONS 13),
    (anon_sym_LPAREN, ACTIONS 15), (anon_sym_STAR, ACTIONS 17), (anon_sym_print, ACTIONS 19),
    (anon_sym_comptime, ACTIONS 99), (anon_sym_assert, ACTIONS 23),
    (anon_sym___comptime_assert, ACTIONS 25), (anon_sym_return, ACTIONS 27),
    (anon_sym_del, ACTIONS 29), (anon_sym_raise, ACTIONS 31), (anon_sym_pass, ACTIONS 33),
    (anon_sym_break, ACTIONS 35), (anon_sym_continue, ACTIONS 37),
    (anon_sym___extension, ACTIONS 101), (anon_sym___mlir_region, ACTIONS 103),
    (anon_sym_if, ACTIONS 105), (anon_sym_match, ACTIONS 107), (anon_sym_async, ACTIONS 109),
    (anon_sym_for, ACTIONS 111), (anon_sym_while, ACTIONS 113), (anon_sym_try, ACTIONS 115),
    (anon_sym_with, ACTIONS 117), (anon_sym_def, ACTIONS 119), (anon_sym_fn, ACTIONS 119),
    (anon_sym_LBRACK, ACTIONS 59), (anon_sym_LBRACE, ACTIONS 61), (anon_sym_global, ACTIONS 63),
    (anon_sym_nonlocal, ACTIONS 65), (anon_sym_exec, ACTIONS 67), (anon_sym_type, ACTIONS 69),
    (anon_sym_class, ACTIONS 121), (anon_sym_struct, ACTIONS 121), (anon_sym_mut, ACTIONS 73),
    (anon_sym_out, ACTIONS 73), (anon_sym_trait, ACTIONS 123), (anon_sym_AT, ACTIONS 77),
    (anon_sym_DASH, ACTIONS 79), (anon_sym_PLUS, ACTIONS 79), (anon_sym_ref, ACTIONS 81),
    (anon_sym_var, ACTIONS 81), (anon_sym_not, ACTIONS 83), (anon_sym_TILDE, ACTIONS 79),
    (anon_sym_lambda, ACTIONS 85), (anon_sym_yield, ACTIONS 87), (sym_ellipsis, ACTIONS 89),
    (anon_sym___mlir_type, ACTIONS 91), (sym_integer, ACTIONS 93), (sym_float, ACTIONS 89),
    (anon_sym_await, ACTIONS 95), (sym_true, ACTIONS 93), (sym_false, ACTIONS 93),
    (sym_none, ACTIONS 93), (sym_comment, ACTIONS 3), (sym_line_continuation, ACTIONS 3),
    (sym__dedent, ACTIONS 125), (sym_string_start, ACTIONS 97)]"

definition parse_table_716 :: "(nat \<times> nat) list" where "parse_table_716 = [
    (sym__statement, STATE 927), (sym__simple_statements, STATE 927),
    (sym_import_statement, STATE 11814), (sym_future_import_statement, STATE 11814),
    (sym_import_from_statement, STATE 11814), (sym_print_statement, STATE 11814),
    (sym_assert_statement, STATE 11814), (sym_comptime_assert_statement, STATE 11814),
    (sym_expression_statement, STATE 11814), (sym_tuple_expression, STATE 12425),
    (sym_named_expression, STATE 7969), (sym__named_expression_lhs, STATE 12752),
    (sym_return_statement, STATE 11814), (sym_delete_statement, STATE 11814),
    (sym_raise_statement, STATE 11814), (sym_pass_statement, STATE 11814),
    (sym_break_statement, STATE 11814), (sym_continue_statement, STATE 11814),
    (sym_extension_definition, STATE 927), (sym_mlir_region, STATE 927),
    (sym_comptime_statement, STATE 927), (sym_if_statement, STATE 927),
    (sym_match_statement, STATE 927), (sym_for_statement, STATE 927),
    (sym_while_statement, STATE 927), (sym_try_statement, STATE 927),
    (sym_with_statement, STATE 927), (sym_function_definition, STATE 927),
    (sym_global_statement, STATE 11814), (sym_nonlocal_statement, STATE 11814),
    (sym_exec_statement, STATE 11814), (sym_type_alias_statement, STATE 11814),
    (sym_parameterized_alias_statement, STATE 11814), (sym_class_definition, STATE 927),
    (sym_trait_definition, STATE 927), (sym_decorated_definition, STATE 927),
    (sym_decorator, STATE 3670), (sym_block, STATE 6157), (sym_pattern, STATE 8086),
    (sym_tuple_pattern, STATE 8101), (sym_list_pattern, STATE 8101),
    (sym_list_splat_pattern, STATE 6819), (sym_as_pattern, STATE 7969),
    (sym_expression, STATE 9883), (sym_primary_expression, STATE 7326),
    (sym_comptime_expression, STATE 7017), (sym_transfer_expression, STATE 7017),
    (sym_not_operator, STATE 7969), (sym_boolean_operator, STATE 7969),
    (sym_binary_operator, STATE 7017), (sym_unary_operator, STATE 7017),
    (sym_comparison_operator, STATE 7969), (sym_lambda, STATE 7969),
    (sym_assignment, STATE 12425), (sym_augmented_assignment, STATE 12425),
    (sym_pattern_list, STATE 8578), (sym_yield, STATE 12425), (sym_attribute, STATE 6836),
    (sym_subscript, STATE 6838), (sym_call, STATE 6845), (sym_mlir_type, STATE 7017),
    (sym_list, STATE 7017), (sym_set, STATE 7017), (sym_tuple, STATE 7017),
    (sym_dictionary, STATE 7017), (sym_struct_literal, STATE 7017),
    (sym_list_comprehension, STATE 7017), (sym_dictionary_comprehension, STATE 7017),
    (sym_set_comprehension, STATE 7017), (sym_generator_expression, STATE 7017),
    (sym_parenthesized_expression, STATE 7017), (sym_conditional_expression, STATE 7969),
    (sym_concatenated_string, STATE 7017), (sym_string, STATE 6751), (sym_await, STATE 7017),
    (aux_sym_module_repeat1, STATE 927), (aux_sym_decorated_definition_repeat1, STATE 3670),
    (sym_identifier, ACTIONS 9), (anon_sym_import, ACTIONS 11), (anon_sym_from, ACTIONS 13),
    (anon_sym_LPAREN, ACTIONS 15), (anon_sym_STAR, ACTIONS 17), (anon_sym_print, ACTIONS 19),
    (anon_sym_comptime, ACTIONS 99), (anon_sym_assert, ACTIONS 23),
    (anon_sym___comptime_assert, ACTIONS 25), (anon_sym_return, ACTIONS 27),
    (anon_sym_del, ACTIONS 29), (anon_sym_raise, ACTIONS 31), (anon_sym_pass, ACTIONS 33),
    (anon_sym_break, ACTIONS 35), (anon_sym_continue, ACTIONS 37),
    (anon_sym___extension, ACTIONS 101), (anon_sym___mlir_region, ACTIONS 103),
    (anon_sym_if, ACTIONS 105), (anon_sym_match, ACTIONS 107), (anon_sym_async, ACTIONS 109),
    (anon_sym_for, ACTIONS 111), (anon_sym_while, ACTIONS 113), (anon_sym_try, ACTIONS 115),
    (anon_sym_with, ACTIONS 117), (anon_sym_def, ACTIONS 119), (anon_sym_fn, ACTIONS 119),
    (anon_sym_LBRACK, ACTIONS 59), (anon_sym_LBRACE, ACTIONS 61), (anon_sym_global, ACTIONS 63),
    (anon_sym_nonlocal, ACTIONS 65), (anon_sym_exec, ACTIONS 67), (anon_sym_type, ACTIONS 69),
    (anon_sym_class, ACTIONS 121), (anon_sym_struct, ACTIONS 121), (anon_sym_mut, ACTIONS 73),
    (anon_sym_out, ACTIONS 73), (anon_sym_trait, ACTIONS 123), (anon_sym_AT, ACTIONS 77),
    (anon_sym_DASH, ACTIONS 79), (anon_sym_PLUS, ACTIONS 79), (anon_sym_ref, ACTIONS 81),
    (anon_sym_var, ACTIONS 81), (anon_sym_not, ACTIONS 83), (anon_sym_TILDE, ACTIONS 79),
    (anon_sym_lambda, ACTIONS 85), (anon_sym_yield, ACTIONS 87), (sym_ellipsis, ACTIONS 89),
    (anon_sym___mlir_type, ACTIONS 91), (sym_integer, ACTIONS 93), (sym_float, ACTIONS 89),
    (anon_sym_await, ACTIONS 95), (sym_true, ACTIONS 93), (sym_false, ACTIONS 93),
    (sym_none, ACTIONS 93), (sym_comment, ACTIONS 3), (sym_line_continuation, ACTIONS 3),
    (sym__dedent, ACTIONS 125), (sym_string_start, ACTIONS 97)]"

definition parse_table_717 :: "(nat \<times> nat) list" where "parse_table_717 = [
    (sym__statement, STATE 927), (sym__simple_statements, STATE 927),
    (sym_import_statement, STATE 11814), (sym_future_import_statement, STATE 11814),
    (sym_import_from_statement, STATE 11814), (sym_print_statement, STATE 11814),
    (sym_assert_statement, STATE 11814), (sym_comptime_assert_statement, STATE 11814),
    (sym_expression_statement, STATE 11814), (sym_tuple_expression, STATE 12425),
    (sym_named_expression, STATE 7969), (sym__named_expression_lhs, STATE 12752),
    (sym_return_statement, STATE 11814), (sym_delete_statement, STATE 11814),
    (sym_raise_statement, STATE 11814), (sym_pass_statement, STATE 11814),
    (sym_break_statement, STATE 11814), (sym_continue_statement, STATE 11814),
    (sym_extension_definition, STATE 927), (sym_mlir_region, STATE 927),
    (sym_comptime_statement, STATE 927), (sym_if_statement, STATE 927),
    (sym_match_statement, STATE 927), (sym_for_statement, STATE 927),
    (sym_while_statement, STATE 927), (sym_try_statement, STATE 927),
    (sym_with_statement, STATE 927), (sym_function_definition, STATE 927),
    (sym_global_statement, STATE 11814), (sym_nonlocal_statement, STATE 11814),
    (sym_exec_statement, STATE 11814), (sym_type_alias_statement, STATE 11814),
    (sym_parameterized_alias_statement, STATE 11814), (sym_class_definition, STATE 927),
    (sym_trait_definition, STATE 927), (sym_decorated_definition, STATE 927),
    (sym_decorator, STATE 3670), (sym_block, STATE 6161), (sym_pattern, STATE 8086),
    (sym_tuple_pattern, STATE 8101), (sym_list_pattern, STATE 8101),
    (sym_list_splat_pattern, STATE 6819), (sym_as_pattern, STATE 7969),
    (sym_expression, STATE 9883), (sym_primary_expression, STATE 7326),
    (sym_comptime_expression, STATE 7017), (sym_transfer_expression, STATE 7017),
    (sym_not_operator, STATE 7969), (sym_boolean_operator, STATE 7969),
    (sym_binary_operator, STATE 7017), (sym_unary_operator, STATE 7017),
    (sym_comparison_operator, STATE 7969), (sym_lambda, STATE 7969),
    (sym_assignment, STATE 12425), (sym_augmented_assignment, STATE 12425),
    (sym_pattern_list, STATE 8578), (sym_yield, STATE 12425), (sym_attribute, STATE 6836),
    (sym_subscript, STATE 6838), (sym_call, STATE 6845), (sym_mlir_type, STATE 7017),
    (sym_list, STATE 7017), (sym_set, STATE 7017), (sym_tuple, STATE 7017),
    (sym_dictionary, STATE 7017), (sym_struct_literal, STATE 7017),
    (sym_list_comprehension, STATE 7017), (sym_dictionary_comprehension, STATE 7017),
    (sym_set_comprehension, STATE 7017), (sym_generator_expression, STATE 7017),
    (sym_parenthesized_expression, STATE 7017), (sym_conditional_expression, STATE 7969),
    (sym_concatenated_string, STATE 7017), (sym_string, STATE 6751), (sym_await, STATE 7017),
    (aux_sym_module_repeat1, STATE 927), (aux_sym_decorated_definition_repeat1, STATE 3670),
    (sym_identifier, ACTIONS 9), (anon_sym_import, ACTIONS 11), (anon_sym_from, ACTIONS 13),
    (anon_sym_LPAREN, ACTIONS 15), (anon_sym_STAR, ACTIONS 17), (anon_sym_print, ACTIONS 19),
    (anon_sym_comptime, ACTIONS 99), (anon_sym_assert, ACTIONS 23),
    (anon_sym___comptime_assert, ACTIONS 25), (anon_sym_return, ACTIONS 27),
    (anon_sym_del, ACTIONS 29), (anon_sym_raise, ACTIONS 31), (anon_sym_pass, ACTIONS 33),
    (anon_sym_break, ACTIONS 35), (anon_sym_continue, ACTIONS 37),
    (anon_sym___extension, ACTIONS 101), (anon_sym___mlir_region, ACTIONS 103),
    (anon_sym_if, ACTIONS 105), (anon_sym_match, ACTIONS 107), (anon_sym_async, ACTIONS 109),
    (anon_sym_for, ACTIONS 111), (anon_sym_while, ACTIONS 113), (anon_sym_try, ACTIONS 115),
    (anon_sym_with, ACTIONS 117), (anon_sym_def, ACTIONS 119), (anon_sym_fn, ACTIONS 119),
    (anon_sym_LBRACK, ACTIONS 59), (anon_sym_LBRACE, ACTIONS 61), (anon_sym_global, ACTIONS 63),
    (anon_sym_nonlocal, ACTIONS 65), (anon_sym_exec, ACTIONS 67), (anon_sym_type, ACTIONS 69),
    (anon_sym_class, ACTIONS 121), (anon_sym_struct, ACTIONS 121), (anon_sym_mut, ACTIONS 73),
    (anon_sym_out, ACTIONS 73), (anon_sym_trait, ACTIONS 123), (anon_sym_AT, ACTIONS 77),
    (anon_sym_DASH, ACTIONS 79), (anon_sym_PLUS, ACTIONS 79), (anon_sym_ref, ACTIONS 81),
    (anon_sym_var, ACTIONS 81), (anon_sym_not, ACTIONS 83), (anon_sym_TILDE, ACTIONS 79),
    (anon_sym_lambda, ACTIONS 85), (anon_sym_yield, ACTIONS 87), (sym_ellipsis, ACTIONS 89),
    (anon_sym___mlir_type, ACTIONS 91), (sym_integer, ACTIONS 93), (sym_float, ACTIONS 89),
    (anon_sym_await, ACTIONS 95), (sym_true, ACTIONS 93), (sym_false, ACTIONS 93),
    (sym_none, ACTIONS 93), (sym_comment, ACTIONS 3), (sym_line_continuation, ACTIONS 3),
    (sym__dedent, ACTIONS 125), (sym_string_start, ACTIONS 97)]"

definition parse_table_718 :: "(nat \<times> nat) list" where "parse_table_718 = [
    (sym__statement, STATE 927), (sym__simple_statements, STATE 927),
    (sym_import_statement, STATE 11814), (sym_future_import_statement, STATE 11814),
    (sym_import_from_statement, STATE 11814), (sym_print_statement, STATE 11814),
    (sym_assert_statement, STATE 11814), (sym_comptime_assert_statement, STATE 11814),
    (sym_expression_statement, STATE 11814), (sym_tuple_expression, STATE 12425),
    (sym_named_expression, STATE 7969), (sym__named_expression_lhs, STATE 12752),
    (sym_return_statement, STATE 11814), (sym_delete_statement, STATE 11814),
    (sym_raise_statement, STATE 11814), (sym_pass_statement, STATE 11814),
    (sym_break_statement, STATE 11814), (sym_continue_statement, STATE 11814),
    (sym_extension_definition, STATE 927), (sym_mlir_region, STATE 927),
    (sym_comptime_statement, STATE 927), (sym_if_statement, STATE 927),
    (sym_match_statement, STATE 927), (sym_for_statement, STATE 927),
    (sym_while_statement, STATE 927), (sym_try_statement, STATE 927),
    (sym_with_statement, STATE 927), (sym_function_definition, STATE 927),
    (sym_global_statement, STATE 11814), (sym_nonlocal_statement, STATE 11814),
    (sym_exec_statement, STATE 11814), (sym_type_alias_statement, STATE 11814),
    (sym_parameterized_alias_statement, STATE 11814), (sym_class_definition, STATE 927),
    (sym_trait_definition, STATE 927), (sym_decorated_definition, STATE 927),
    (sym_decorator, STATE 3670), (sym_block, STATE 6165), (sym_pattern, STATE 8086),
    (sym_tuple_pattern, STATE 8101), (sym_list_pattern, STATE 8101),
    (sym_list_splat_pattern, STATE 6819), (sym_as_pattern, STATE 7969),
    (sym_expression, STATE 9883), (sym_primary_expression, STATE 7326),
    (sym_comptime_expression, STATE 7017), (sym_transfer_expression, STATE 7017),
    (sym_not_operator, STATE 7969), (sym_boolean_operator, STATE 7969),
    (sym_binary_operator, STATE 7017), (sym_unary_operator, STATE 7017),
    (sym_comparison_operator, STATE 7969), (sym_lambda, STATE 7969),
    (sym_assignment, STATE 12425), (sym_augmented_assignment, STATE 12425),
    (sym_pattern_list, STATE 8578), (sym_yield, STATE 12425), (sym_attribute, STATE 6836),
    (sym_subscript, STATE 6838), (sym_call, STATE 6845), (sym_mlir_type, STATE 7017),
    (sym_list, STATE 7017), (sym_set, STATE 7017), (sym_tuple, STATE 7017),
    (sym_dictionary, STATE 7017), (sym_struct_literal, STATE 7017),
    (sym_list_comprehension, STATE 7017), (sym_dictionary_comprehension, STATE 7017),
    (sym_set_comprehension, STATE 7017), (sym_generator_expression, STATE 7017),
    (sym_parenthesized_expression, STATE 7017), (sym_conditional_expression, STATE 7969),
    (sym_concatenated_string, STATE 7017), (sym_string, STATE 6751), (sym_await, STATE 7017),
    (aux_sym_module_repeat1, STATE 927), (aux_sym_decorated_definition_repeat1, STATE 3670),
    (sym_identifier, ACTIONS 9), (anon_sym_import, ACTIONS 11), (anon_sym_from, ACTIONS 13),
    (anon_sym_LPAREN, ACTIONS 15), (anon_sym_STAR, ACTIONS 17), (anon_sym_print, ACTIONS 19),
    (anon_sym_comptime, ACTIONS 99), (anon_sym_assert, ACTIONS 23),
    (anon_sym___comptime_assert, ACTIONS 25), (anon_sym_return, ACTIONS 27),
    (anon_sym_del, ACTIONS 29), (anon_sym_raise, ACTIONS 31), (anon_sym_pass, ACTIONS 33),
    (anon_sym_break, ACTIONS 35), (anon_sym_continue, ACTIONS 37),
    (anon_sym___extension, ACTIONS 101), (anon_sym___mlir_region, ACTIONS 103),
    (anon_sym_if, ACTIONS 105), (anon_sym_match, ACTIONS 107), (anon_sym_async, ACTIONS 109),
    (anon_sym_for, ACTIONS 111), (anon_sym_while, ACTIONS 113), (anon_sym_try, ACTIONS 115),
    (anon_sym_with, ACTIONS 117), (anon_sym_def, ACTIONS 119), (anon_sym_fn, ACTIONS 119),
    (anon_sym_LBRACK, ACTIONS 59), (anon_sym_LBRACE, ACTIONS 61), (anon_sym_global, ACTIONS 63),
    (anon_sym_nonlocal, ACTIONS 65), (anon_sym_exec, ACTIONS 67), (anon_sym_type, ACTIONS 69),
    (anon_sym_class, ACTIONS 121), (anon_sym_struct, ACTIONS 121), (anon_sym_mut, ACTIONS 73),
    (anon_sym_out, ACTIONS 73), (anon_sym_trait, ACTIONS 123), (anon_sym_AT, ACTIONS 77),
    (anon_sym_DASH, ACTIONS 79), (anon_sym_PLUS, ACTIONS 79), (anon_sym_ref, ACTIONS 81),
    (anon_sym_var, ACTIONS 81), (anon_sym_not, ACTIONS 83), (anon_sym_TILDE, ACTIONS 79),
    (anon_sym_lambda, ACTIONS 85), (anon_sym_yield, ACTIONS 87), (sym_ellipsis, ACTIONS 89),
    (anon_sym___mlir_type, ACTIONS 91), (sym_integer, ACTIONS 93), (sym_float, ACTIONS 89),
    (anon_sym_await, ACTIONS 95), (sym_true, ACTIONS 93), (sym_false, ACTIONS 93),
    (sym_none, ACTIONS 93), (sym_comment, ACTIONS 3), (sym_line_continuation, ACTIONS 3),
    (sym__dedent, ACTIONS 125), (sym_string_start, ACTIONS 97)]"

definition parse_table_719 :: "(nat \<times> nat) list" where "parse_table_719 = [
    (sym__statement, STATE 927), (sym__simple_statements, STATE 927),
    (sym_import_statement, STATE 11814), (sym_future_import_statement, STATE 11814),
    (sym_import_from_statement, STATE 11814), (sym_print_statement, STATE 11814),
    (sym_assert_statement, STATE 11814), (sym_comptime_assert_statement, STATE 11814),
    (sym_expression_statement, STATE 11814), (sym_tuple_expression, STATE 12425),
    (sym_named_expression, STATE 7969), (sym__named_expression_lhs, STATE 12752),
    (sym_return_statement, STATE 11814), (sym_delete_statement, STATE 11814),
    (sym_raise_statement, STATE 11814), (sym_pass_statement, STATE 11814),
    (sym_break_statement, STATE 11814), (sym_continue_statement, STATE 11814),
    (sym_extension_definition, STATE 927), (sym_mlir_region, STATE 927),
    (sym_comptime_statement, STATE 927), (sym_if_statement, STATE 927),
    (sym_match_statement, STATE 927), (sym_for_statement, STATE 927),
    (sym_while_statement, STATE 927), (sym_try_statement, STATE 927),
    (sym_with_statement, STATE 927), (sym_function_definition, STATE 927),
    (sym_global_statement, STATE 11814), (sym_nonlocal_statement, STATE 11814),
    (sym_exec_statement, STATE 11814), (sym_type_alias_statement, STATE 11814),
    (sym_parameterized_alias_statement, STATE 11814), (sym_class_definition, STATE 927),
    (sym_trait_definition, STATE 927), (sym_decorated_definition, STATE 927),
    (sym_decorator, STATE 3670), (sym_block, STATE 6170), (sym_pattern, STATE 8086),
    (sym_tuple_pattern, STATE 8101), (sym_list_pattern, STATE 8101),
    (sym_list_splat_pattern, STATE 6819), (sym_as_pattern, STATE 7969),
    (sym_expression, STATE 9883), (sym_primary_expression, STATE 7326),
    (sym_comptime_expression, STATE 7017), (sym_transfer_expression, STATE 7017),
    (sym_not_operator, STATE 7969), (sym_boolean_operator, STATE 7969),
    (sym_binary_operator, STATE 7017), (sym_unary_operator, STATE 7017),
    (sym_comparison_operator, STATE 7969), (sym_lambda, STATE 7969),
    (sym_assignment, STATE 12425), (sym_augmented_assignment, STATE 12425),
    (sym_pattern_list, STATE 8578), (sym_yield, STATE 12425), (sym_attribute, STATE 6836),
    (sym_subscript, STATE 6838), (sym_call, STATE 6845), (sym_mlir_type, STATE 7017),
    (sym_list, STATE 7017), (sym_set, STATE 7017), (sym_tuple, STATE 7017),
    (sym_dictionary, STATE 7017), (sym_struct_literal, STATE 7017),
    (sym_list_comprehension, STATE 7017), (sym_dictionary_comprehension, STATE 7017),
    (sym_set_comprehension, STATE 7017), (sym_generator_expression, STATE 7017),
    (sym_parenthesized_expression, STATE 7017), (sym_conditional_expression, STATE 7969),
    (sym_concatenated_string, STATE 7017), (sym_string, STATE 6751), (sym_await, STATE 7017),
    (aux_sym_module_repeat1, STATE 927), (aux_sym_decorated_definition_repeat1, STATE 3670),
    (sym_identifier, ACTIONS 9), (anon_sym_import, ACTIONS 11), (anon_sym_from, ACTIONS 13),
    (anon_sym_LPAREN, ACTIONS 15), (anon_sym_STAR, ACTIONS 17), (anon_sym_print, ACTIONS 19),
    (anon_sym_comptime, ACTIONS 99), (anon_sym_assert, ACTIONS 23),
    (anon_sym___comptime_assert, ACTIONS 25), (anon_sym_return, ACTIONS 27),
    (anon_sym_del, ACTIONS 29), (anon_sym_raise, ACTIONS 31), (anon_sym_pass, ACTIONS 33),
    (anon_sym_break, ACTIONS 35), (anon_sym_continue, ACTIONS 37),
    (anon_sym___extension, ACTIONS 101), (anon_sym___mlir_region, ACTIONS 103),
    (anon_sym_if, ACTIONS 105), (anon_sym_match, ACTIONS 107), (anon_sym_async, ACTIONS 109),
    (anon_sym_for, ACTIONS 111), (anon_sym_while, ACTIONS 113), (anon_sym_try, ACTIONS 115),
    (anon_sym_with, ACTIONS 117), (anon_sym_def, ACTIONS 119), (anon_sym_fn, ACTIONS 119),
    (anon_sym_LBRACK, ACTIONS 59), (anon_sym_LBRACE, ACTIONS 61), (anon_sym_global, ACTIONS 63),
    (anon_sym_nonlocal, ACTIONS 65), (anon_sym_exec, ACTIONS 67), (anon_sym_type, ACTIONS 69),
    (anon_sym_class, ACTIONS 121), (anon_sym_struct, ACTIONS 121), (anon_sym_mut, ACTIONS 73),
    (anon_sym_out, ACTIONS 73), (anon_sym_trait, ACTIONS 123), (anon_sym_AT, ACTIONS 77),
    (anon_sym_DASH, ACTIONS 79), (anon_sym_PLUS, ACTIONS 79), (anon_sym_ref, ACTIONS 81),
    (anon_sym_var, ACTIONS 81), (anon_sym_not, ACTIONS 83), (anon_sym_TILDE, ACTIONS 79),
    (anon_sym_lambda, ACTIONS 85), (anon_sym_yield, ACTIONS 87), (sym_ellipsis, ACTIONS 89),
    (anon_sym___mlir_type, ACTIONS 91), (sym_integer, ACTIONS 93), (sym_float, ACTIONS 89),
    (anon_sym_await, ACTIONS 95), (sym_true, ACTIONS 93), (sym_false, ACTIONS 93),
    (sym_none, ACTIONS 93), (sym_comment, ACTIONS 3), (sym_line_continuation, ACTIONS 3),
    (sym__dedent, ACTIONS 125), (sym_string_start, ACTIONS 97)]"

definition parse_table_720 :: "(nat \<times> nat) list" where "parse_table_720 = [
    (sym__statement, STATE 927), (sym__simple_statements, STATE 927),
    (sym_import_statement, STATE 11814), (sym_future_import_statement, STATE 11814),
    (sym_import_from_statement, STATE 11814), (sym_print_statement, STATE 11814),
    (sym_assert_statement, STATE 11814), (sym_comptime_assert_statement, STATE 11814),
    (sym_expression_statement, STATE 11814), (sym_tuple_expression, STATE 12425),
    (sym_named_expression, STATE 7969), (sym__named_expression_lhs, STATE 12752),
    (sym_return_statement, STATE 11814), (sym_delete_statement, STATE 11814),
    (sym_raise_statement, STATE 11814), (sym_pass_statement, STATE 11814),
    (sym_break_statement, STATE 11814), (sym_continue_statement, STATE 11814),
    (sym_extension_definition, STATE 927), (sym_mlir_region, STATE 927),
    (sym_comptime_statement, STATE 927), (sym_if_statement, STATE 927),
    (sym_match_statement, STATE 927), (sym_for_statement, STATE 927),
    (sym_while_statement, STATE 927), (sym_try_statement, STATE 927),
    (sym_with_statement, STATE 927), (sym_function_definition, STATE 927),
    (sym_global_statement, STATE 11814), (sym_nonlocal_statement, STATE 11814),
    (sym_exec_statement, STATE 11814), (sym_type_alias_statement, STATE 11814),
    (sym_parameterized_alias_statement, STATE 11814), (sym_class_definition, STATE 927),
    (sym_trait_definition, STATE 927), (sym_decorated_definition, STATE 927),
    (sym_decorator, STATE 3670), (sym_block, STATE 6172), (sym_pattern, STATE 8086),
    (sym_tuple_pattern, STATE 8101), (sym_list_pattern, STATE 8101),
    (sym_list_splat_pattern, STATE 6819), (sym_as_pattern, STATE 7969),
    (sym_expression, STATE 9883), (sym_primary_expression, STATE 7326),
    (sym_comptime_expression, STATE 7017), (sym_transfer_expression, STATE 7017),
    (sym_not_operator, STATE 7969), (sym_boolean_operator, STATE 7969),
    (sym_binary_operator, STATE 7017), (sym_unary_operator, STATE 7017),
    (sym_comparison_operator, STATE 7969), (sym_lambda, STATE 7969),
    (sym_assignment, STATE 12425), (sym_augmented_assignment, STATE 12425),
    (sym_pattern_list, STATE 8578), (sym_yield, STATE 12425), (sym_attribute, STATE 6836),
    (sym_subscript, STATE 6838), (sym_call, STATE 6845), (sym_mlir_type, STATE 7017),
    (sym_list, STATE 7017), (sym_set, STATE 7017), (sym_tuple, STATE 7017),
    (sym_dictionary, STATE 7017), (sym_struct_literal, STATE 7017),
    (sym_list_comprehension, STATE 7017), (sym_dictionary_comprehension, STATE 7017),
    (sym_set_comprehension, STATE 7017), (sym_generator_expression, STATE 7017),
    (sym_parenthesized_expression, STATE 7017), (sym_conditional_expression, STATE 7969),
    (sym_concatenated_string, STATE 7017), (sym_string, STATE 6751), (sym_await, STATE 7017),
    (aux_sym_module_repeat1, STATE 927), (aux_sym_decorated_definition_repeat1, STATE 3670),
    (sym_identifier, ACTIONS 9), (anon_sym_import, ACTIONS 11), (anon_sym_from, ACTIONS 13),
    (anon_sym_LPAREN, ACTIONS 15), (anon_sym_STAR, ACTIONS 17), (anon_sym_print, ACTIONS 19),
    (anon_sym_comptime, ACTIONS 99), (anon_sym_assert, ACTIONS 23),
    (anon_sym___comptime_assert, ACTIONS 25), (anon_sym_return, ACTIONS 27),
    (anon_sym_del, ACTIONS 29), (anon_sym_raise, ACTIONS 31), (anon_sym_pass, ACTIONS 33),
    (anon_sym_break, ACTIONS 35), (anon_sym_continue, ACTIONS 37),
    (anon_sym___extension, ACTIONS 101), (anon_sym___mlir_region, ACTIONS 103),
    (anon_sym_if, ACTIONS 105), (anon_sym_match, ACTIONS 107), (anon_sym_async, ACTIONS 109),
    (anon_sym_for, ACTIONS 111), (anon_sym_while, ACTIONS 113), (anon_sym_try, ACTIONS 115),
    (anon_sym_with, ACTIONS 117), (anon_sym_def, ACTIONS 119), (anon_sym_fn, ACTIONS 119),
    (anon_sym_LBRACK, ACTIONS 59), (anon_sym_LBRACE, ACTIONS 61), (anon_sym_global, ACTIONS 63),
    (anon_sym_nonlocal, ACTIONS 65), (anon_sym_exec, ACTIONS 67), (anon_sym_type, ACTIONS 69),
    (anon_sym_class, ACTIONS 121), (anon_sym_struct, ACTIONS 121), (anon_sym_mut, ACTIONS 73),
    (anon_sym_out, ACTIONS 73), (anon_sym_trait, ACTIONS 123), (anon_sym_AT, ACTIONS 77),
    (anon_sym_DASH, ACTIONS 79), (anon_sym_PLUS, ACTIONS 79), (anon_sym_ref, ACTIONS 81),
    (anon_sym_var, ACTIONS 81), (anon_sym_not, ACTIONS 83), (anon_sym_TILDE, ACTIONS 79),
    (anon_sym_lambda, ACTIONS 85), (anon_sym_yield, ACTIONS 87), (sym_ellipsis, ACTIONS 89),
    (anon_sym___mlir_type, ACTIONS 91), (sym_integer, ACTIONS 93), (sym_float, ACTIONS 89),
    (anon_sym_await, ACTIONS 95), (sym_true, ACTIONS 93), (sym_false, ACTIONS 93),
    (sym_none, ACTIONS 93), (sym_comment, ACTIONS 3), (sym_line_continuation, ACTIONS 3),
    (sym__dedent, ACTIONS 125), (sym_string_start, ACTIONS 97)]"

definition parse_table_721 :: "(nat \<times> nat) list" where "parse_table_721 = [
    (sym__statement, STATE 927), (sym__simple_statements, STATE 927),
    (sym_import_statement, STATE 11814), (sym_future_import_statement, STATE 11814),
    (sym_import_from_statement, STATE 11814), (sym_print_statement, STATE 11814),
    (sym_assert_statement, STATE 11814), (sym_comptime_assert_statement, STATE 11814),
    (sym_expression_statement, STATE 11814), (sym_tuple_expression, STATE 12425),
    (sym_named_expression, STATE 7969), (sym__named_expression_lhs, STATE 12752),
    (sym_return_statement, STATE 11814), (sym_delete_statement, STATE 11814),
    (sym_raise_statement, STATE 11814), (sym_pass_statement, STATE 11814),
    (sym_break_statement, STATE 11814), (sym_continue_statement, STATE 11814),
    (sym_extension_definition, STATE 927), (sym_mlir_region, STATE 927),
    (sym_comptime_statement, STATE 927), (sym_if_statement, STATE 927),
    (sym_match_statement, STATE 927), (sym_for_statement, STATE 927),
    (sym_while_statement, STATE 927), (sym_try_statement, STATE 927),
    (sym_with_statement, STATE 927), (sym_function_definition, STATE 927),
    (sym_global_statement, STATE 11814), (sym_nonlocal_statement, STATE 11814),
    (sym_exec_statement, STATE 11814), (sym_type_alias_statement, STATE 11814),
    (sym_parameterized_alias_statement, STATE 11814), (sym_class_definition, STATE 927),
    (sym_trait_definition, STATE 927), (sym_decorated_definition, STATE 927),
    (sym_decorator, STATE 3670), (sym_block, STATE 6176), (sym_pattern, STATE 8086),
    (sym_tuple_pattern, STATE 8101), (sym_list_pattern, STATE 8101),
    (sym_list_splat_pattern, STATE 6819), (sym_as_pattern, STATE 7969),
    (sym_expression, STATE 9883), (sym_primary_expression, STATE 7326),
    (sym_comptime_expression, STATE 7017), (sym_transfer_expression, STATE 7017),
    (sym_not_operator, STATE 7969), (sym_boolean_operator, STATE 7969),
    (sym_binary_operator, STATE 7017), (sym_unary_operator, STATE 7017),
    (sym_comparison_operator, STATE 7969), (sym_lambda, STATE 7969),
    (sym_assignment, STATE 12425), (sym_augmented_assignment, STATE 12425),
    (sym_pattern_list, STATE 8578), (sym_yield, STATE 12425), (sym_attribute, STATE 6836),
    (sym_subscript, STATE 6838), (sym_call, STATE 6845), (sym_mlir_type, STATE 7017),
    (sym_list, STATE 7017), (sym_set, STATE 7017), (sym_tuple, STATE 7017),
    (sym_dictionary, STATE 7017), (sym_struct_literal, STATE 7017),
    (sym_list_comprehension, STATE 7017), (sym_dictionary_comprehension, STATE 7017),
    (sym_set_comprehension, STATE 7017), (sym_generator_expression, STATE 7017),
    (sym_parenthesized_expression, STATE 7017), (sym_conditional_expression, STATE 7969),
    (sym_concatenated_string, STATE 7017), (sym_string, STATE 6751), (sym_await, STATE 7017),
    (aux_sym_module_repeat1, STATE 927), (aux_sym_decorated_definition_repeat1, STATE 3670),
    (sym_identifier, ACTIONS 9), (anon_sym_import, ACTIONS 11), (anon_sym_from, ACTIONS 13),
    (anon_sym_LPAREN, ACTIONS 15), (anon_sym_STAR, ACTIONS 17), (anon_sym_print, ACTIONS 19),
    (anon_sym_comptime, ACTIONS 99), (anon_sym_assert, ACTIONS 23),
    (anon_sym___comptime_assert, ACTIONS 25), (anon_sym_return, ACTIONS 27),
    (anon_sym_del, ACTIONS 29), (anon_sym_raise, ACTIONS 31), (anon_sym_pass, ACTIONS 33),
    (anon_sym_break, ACTIONS 35), (anon_sym_continue, ACTIONS 37),
    (anon_sym___extension, ACTIONS 101), (anon_sym___mlir_region, ACTIONS 103),
    (anon_sym_if, ACTIONS 105), (anon_sym_match, ACTIONS 107), (anon_sym_async, ACTIONS 109),
    (anon_sym_for, ACTIONS 111), (anon_sym_while, ACTIONS 113), (anon_sym_try, ACTIONS 115),
    (anon_sym_with, ACTIONS 117), (anon_sym_def, ACTIONS 119), (anon_sym_fn, ACTIONS 119),
    (anon_sym_LBRACK, ACTIONS 59), (anon_sym_LBRACE, ACTIONS 61), (anon_sym_global, ACTIONS 63),
    (anon_sym_nonlocal, ACTIONS 65), (anon_sym_exec, ACTIONS 67), (anon_sym_type, ACTIONS 69),
    (anon_sym_class, ACTIONS 121), (anon_sym_struct, ACTIONS 121), (anon_sym_mut, ACTIONS 73),
    (anon_sym_out, ACTIONS 73), (anon_sym_trait, ACTIONS 123), (anon_sym_AT, ACTIONS 77),
    (anon_sym_DASH, ACTIONS 79), (anon_sym_PLUS, ACTIONS 79), (anon_sym_ref, ACTIONS 81),
    (anon_sym_var, ACTIONS 81), (anon_sym_not, ACTIONS 83), (anon_sym_TILDE, ACTIONS 79),
    (anon_sym_lambda, ACTIONS 85), (anon_sym_yield, ACTIONS 87), (sym_ellipsis, ACTIONS 89),
    (anon_sym___mlir_type, ACTIONS 91), (sym_integer, ACTIONS 93), (sym_float, ACTIONS 89),
    (anon_sym_await, ACTIONS 95), (sym_true, ACTIONS 93), (sym_false, ACTIONS 93),
    (sym_none, ACTIONS 93), (sym_comment, ACTIONS 3), (sym_line_continuation, ACTIONS 3),
    (sym__dedent, ACTIONS 125), (sym_string_start, ACTIONS 97)]"

definition parse_table_722 :: "(nat \<times> nat) list" where "parse_table_722 = [
    (sym__statement, STATE 927), (sym__simple_statements, STATE 927),
    (sym_import_statement, STATE 11814), (sym_future_import_statement, STATE 11814),
    (sym_import_from_statement, STATE 11814), (sym_print_statement, STATE 11814),
    (sym_assert_statement, STATE 11814), (sym_comptime_assert_statement, STATE 11814),
    (sym_expression_statement, STATE 11814), (sym_tuple_expression, STATE 12425),
    (sym_named_expression, STATE 7969), (sym__named_expression_lhs, STATE 12752),
    (sym_return_statement, STATE 11814), (sym_delete_statement, STATE 11814),
    (sym_raise_statement, STATE 11814), (sym_pass_statement, STATE 11814),
    (sym_break_statement, STATE 11814), (sym_continue_statement, STATE 11814),
    (sym_extension_definition, STATE 927), (sym_mlir_region, STATE 927),
    (sym_comptime_statement, STATE 927), (sym_if_statement, STATE 927),
    (sym_match_statement, STATE 927), (sym_for_statement, STATE 927),
    (sym_while_statement, STATE 927), (sym_try_statement, STATE 927),
    (sym_with_statement, STATE 927), (sym_function_definition, STATE 927),
    (sym_global_statement, STATE 11814), (sym_nonlocal_statement, STATE 11814),
    (sym_exec_statement, STATE 11814), (sym_type_alias_statement, STATE 11814),
    (sym_parameterized_alias_statement, STATE 11814), (sym_class_definition, STATE 927),
    (sym_trait_definition, STATE 927), (sym_decorated_definition, STATE 927),
    (sym_decorator, STATE 3670), (sym_block, STATE 6179), (sym_pattern, STATE 8086),
    (sym_tuple_pattern, STATE 8101), (sym_list_pattern, STATE 8101),
    (sym_list_splat_pattern, STATE 6819), (sym_as_pattern, STATE 7969),
    (sym_expression, STATE 9883), (sym_primary_expression, STATE 7326),
    (sym_comptime_expression, STATE 7017), (sym_transfer_expression, STATE 7017),
    (sym_not_operator, STATE 7969), (sym_boolean_operator, STATE 7969),
    (sym_binary_operator, STATE 7017), (sym_unary_operator, STATE 7017),
    (sym_comparison_operator, STATE 7969), (sym_lambda, STATE 7969),
    (sym_assignment, STATE 12425), (sym_augmented_assignment, STATE 12425),
    (sym_pattern_list, STATE 8578), (sym_yield, STATE 12425), (sym_attribute, STATE 6836),
    (sym_subscript, STATE 6838), (sym_call, STATE 6845), (sym_mlir_type, STATE 7017),
    (sym_list, STATE 7017), (sym_set, STATE 7017), (sym_tuple, STATE 7017),
    (sym_dictionary, STATE 7017), (sym_struct_literal, STATE 7017),
    (sym_list_comprehension, STATE 7017), (sym_dictionary_comprehension, STATE 7017),
    (sym_set_comprehension, STATE 7017), (sym_generator_expression, STATE 7017),
    (sym_parenthesized_expression, STATE 7017), (sym_conditional_expression, STATE 7969),
    (sym_concatenated_string, STATE 7017), (sym_string, STATE 6751), (sym_await, STATE 7017),
    (aux_sym_module_repeat1, STATE 927), (aux_sym_decorated_definition_repeat1, STATE 3670),
    (sym_identifier, ACTIONS 9), (anon_sym_import, ACTIONS 11), (anon_sym_from, ACTIONS 13),
    (anon_sym_LPAREN, ACTIONS 15), (anon_sym_STAR, ACTIONS 17), (anon_sym_print, ACTIONS 19),
    (anon_sym_comptime, ACTIONS 99), (anon_sym_assert, ACTIONS 23),
    (anon_sym___comptime_assert, ACTIONS 25), (anon_sym_return, ACTIONS 27),
    (anon_sym_del, ACTIONS 29), (anon_sym_raise, ACTIONS 31), (anon_sym_pass, ACTIONS 33),
    (anon_sym_break, ACTIONS 35), (anon_sym_continue, ACTIONS 37),
    (anon_sym___extension, ACTIONS 101), (anon_sym___mlir_region, ACTIONS 103),
    (anon_sym_if, ACTIONS 105), (anon_sym_match, ACTIONS 107), (anon_sym_async, ACTIONS 109),
    (anon_sym_for, ACTIONS 111), (anon_sym_while, ACTIONS 113), (anon_sym_try, ACTIONS 115),
    (anon_sym_with, ACTIONS 117), (anon_sym_def, ACTIONS 119), (anon_sym_fn, ACTIONS 119),
    (anon_sym_LBRACK, ACTIONS 59), (anon_sym_LBRACE, ACTIONS 61), (anon_sym_global, ACTIONS 63),
    (anon_sym_nonlocal, ACTIONS 65), (anon_sym_exec, ACTIONS 67), (anon_sym_type, ACTIONS 69),
    (anon_sym_class, ACTIONS 121), (anon_sym_struct, ACTIONS 121), (anon_sym_mut, ACTIONS 73),
    (anon_sym_out, ACTIONS 73), (anon_sym_trait, ACTIONS 123), (anon_sym_AT, ACTIONS 77),
    (anon_sym_DASH, ACTIONS 79), (anon_sym_PLUS, ACTIONS 79), (anon_sym_ref, ACTIONS 81),
    (anon_sym_var, ACTIONS 81), (anon_sym_not, ACTIONS 83), (anon_sym_TILDE, ACTIONS 79),
    (anon_sym_lambda, ACTIONS 85), (anon_sym_yield, ACTIONS 87), (sym_ellipsis, ACTIONS 89),
    (anon_sym___mlir_type, ACTIONS 91), (sym_integer, ACTIONS 93), (sym_float, ACTIONS 89),
    (anon_sym_await, ACTIONS 95), (sym_true, ACTIONS 93), (sym_false, ACTIONS 93),
    (sym_none, ACTIONS 93), (sym_comment, ACTIONS 3), (sym_line_continuation, ACTIONS 3),
    (sym__dedent, ACTIONS 125), (sym_string_start, ACTIONS 97)]"

definition parse_table_723 :: "(nat \<times> nat) list" where "parse_table_723 = [
    (sym__statement, STATE 927), (sym__simple_statements, STATE 927),
    (sym_import_statement, STATE 11814), (sym_future_import_statement, STATE 11814),
    (sym_import_from_statement, STATE 11814), (sym_print_statement, STATE 11814),
    (sym_assert_statement, STATE 11814), (sym_comptime_assert_statement, STATE 11814),
    (sym_expression_statement, STATE 11814), (sym_tuple_expression, STATE 12425),
    (sym_named_expression, STATE 7969), (sym__named_expression_lhs, STATE 12752),
    (sym_return_statement, STATE 11814), (sym_delete_statement, STATE 11814),
    (sym_raise_statement, STATE 11814), (sym_pass_statement, STATE 11814),
    (sym_break_statement, STATE 11814), (sym_continue_statement, STATE 11814),
    (sym_extension_definition, STATE 927), (sym_mlir_region, STATE 927),
    (sym_comptime_statement, STATE 927), (sym_if_statement, STATE 927),
    (sym_match_statement, STATE 927), (sym_for_statement, STATE 927),
    (sym_while_statement, STATE 927), (sym_try_statement, STATE 927),
    (sym_with_statement, STATE 927), (sym_function_definition, STATE 927),
    (sym_global_statement, STATE 11814), (sym_nonlocal_statement, STATE 11814),
    (sym_exec_statement, STATE 11814), (sym_type_alias_statement, STATE 11814),
    (sym_parameterized_alias_statement, STATE 11814), (sym_class_definition, STATE 927),
    (sym_trait_definition, STATE 927), (sym_decorated_definition, STATE 927),
    (sym_decorator, STATE 3670), (sym_block, STATE 6182), (sym_pattern, STATE 8086),
    (sym_tuple_pattern, STATE 8101), (sym_list_pattern, STATE 8101),
    (sym_list_splat_pattern, STATE 6819), (sym_as_pattern, STATE 7969),
    (sym_expression, STATE 9883), (sym_primary_expression, STATE 7326),
    (sym_comptime_expression, STATE 7017), (sym_transfer_expression, STATE 7017),
    (sym_not_operator, STATE 7969), (sym_boolean_operator, STATE 7969),
    (sym_binary_operator, STATE 7017), (sym_unary_operator, STATE 7017),
    (sym_comparison_operator, STATE 7969), (sym_lambda, STATE 7969),
    (sym_assignment, STATE 12425), (sym_augmented_assignment, STATE 12425),
    (sym_pattern_list, STATE 8578), (sym_yield, STATE 12425), (sym_attribute, STATE 6836),
    (sym_subscript, STATE 6838), (sym_call, STATE 6845), (sym_mlir_type, STATE 7017),
    (sym_list, STATE 7017), (sym_set, STATE 7017), (sym_tuple, STATE 7017),
    (sym_dictionary, STATE 7017), (sym_struct_literal, STATE 7017),
    (sym_list_comprehension, STATE 7017), (sym_dictionary_comprehension, STATE 7017),
    (sym_set_comprehension, STATE 7017), (sym_generator_expression, STATE 7017),
    (sym_parenthesized_expression, STATE 7017), (sym_conditional_expression, STATE 7969),
    (sym_concatenated_string, STATE 7017), (sym_string, STATE 6751), (sym_await, STATE 7017),
    (aux_sym_module_repeat1, STATE 927), (aux_sym_decorated_definition_repeat1, STATE 3670),
    (sym_identifier, ACTIONS 9), (anon_sym_import, ACTIONS 11), (anon_sym_from, ACTIONS 13),
    (anon_sym_LPAREN, ACTIONS 15), (anon_sym_STAR, ACTIONS 17), (anon_sym_print, ACTIONS 19),
    (anon_sym_comptime, ACTIONS 99), (anon_sym_assert, ACTIONS 23),
    (anon_sym___comptime_assert, ACTIONS 25), (anon_sym_return, ACTIONS 27),
    (anon_sym_del, ACTIONS 29), (anon_sym_raise, ACTIONS 31), (anon_sym_pass, ACTIONS 33),
    (anon_sym_break, ACTIONS 35), (anon_sym_continue, ACTIONS 37),
    (anon_sym___extension, ACTIONS 101), (anon_sym___mlir_region, ACTIONS 103),
    (anon_sym_if, ACTIONS 105), (anon_sym_match, ACTIONS 107), (anon_sym_async, ACTIONS 109),
    (anon_sym_for, ACTIONS 111), (anon_sym_while, ACTIONS 113), (anon_sym_try, ACTIONS 115),
    (anon_sym_with, ACTIONS 117), (anon_sym_def, ACTIONS 119), (anon_sym_fn, ACTIONS 119),
    (anon_sym_LBRACK, ACTIONS 59), (anon_sym_LBRACE, ACTIONS 61), (anon_sym_global, ACTIONS 63),
    (anon_sym_nonlocal, ACTIONS 65), (anon_sym_exec, ACTIONS 67), (anon_sym_type, ACTIONS 69),
    (anon_sym_class, ACTIONS 121), (anon_sym_struct, ACTIONS 121), (anon_sym_mut, ACTIONS 73),
    (anon_sym_out, ACTIONS 73), (anon_sym_trait, ACTIONS 123), (anon_sym_AT, ACTIONS 77),
    (anon_sym_DASH, ACTIONS 79), (anon_sym_PLUS, ACTIONS 79), (anon_sym_ref, ACTIONS 81),
    (anon_sym_var, ACTIONS 81), (anon_sym_not, ACTIONS 83), (anon_sym_TILDE, ACTIONS 79),
    (anon_sym_lambda, ACTIONS 85), (anon_sym_yield, ACTIONS 87), (sym_ellipsis, ACTIONS 89),
    (anon_sym___mlir_type, ACTIONS 91), (sym_integer, ACTIONS 93), (sym_float, ACTIONS 89),
    (anon_sym_await, ACTIONS 95), (sym_true, ACTIONS 93), (sym_false, ACTIONS 93),
    (sym_none, ACTIONS 93), (sym_comment, ACTIONS 3), (sym_line_continuation, ACTIONS 3),
    (sym__dedent, ACTIONS 125), (sym_string_start, ACTIONS 97)]"

definition parse_table_724 :: "(nat \<times> nat) list" where "parse_table_724 = [
    (sym__statement, STATE 927), (sym__simple_statements, STATE 927),
    (sym_import_statement, STATE 11814), (sym_future_import_statement, STATE 11814),
    (sym_import_from_statement, STATE 11814), (sym_print_statement, STATE 11814),
    (sym_assert_statement, STATE 11814), (sym_comptime_assert_statement, STATE 11814),
    (sym_expression_statement, STATE 11814), (sym_tuple_expression, STATE 12425),
    (sym_named_expression, STATE 7969), (sym__named_expression_lhs, STATE 12752),
    (sym_return_statement, STATE 11814), (sym_delete_statement, STATE 11814),
    (sym_raise_statement, STATE 11814), (sym_pass_statement, STATE 11814),
    (sym_break_statement, STATE 11814), (sym_continue_statement, STATE 11814),
    (sym_extension_definition, STATE 927), (sym_mlir_region, STATE 927),
    (sym_comptime_statement, STATE 927), (sym_if_statement, STATE 927),
    (sym_match_statement, STATE 927), (sym_for_statement, STATE 927),
    (sym_while_statement, STATE 927), (sym_try_statement, STATE 927),
    (sym_with_statement, STATE 927), (sym_function_definition, STATE 927),
    (sym_global_statement, STATE 11814), (sym_nonlocal_statement, STATE 11814),
    (sym_exec_statement, STATE 11814), (sym_type_alias_statement, STATE 11814),
    (sym_parameterized_alias_statement, STATE 11814), (sym_class_definition, STATE 927),
    (sym_trait_definition, STATE 927), (sym_decorated_definition, STATE 927),
    (sym_decorator, STATE 3670), (sym_block, STATE 6191), (sym_pattern, STATE 8086),
    (sym_tuple_pattern, STATE 8101), (sym_list_pattern, STATE 8101),
    (sym_list_splat_pattern, STATE 6819), (sym_as_pattern, STATE 7969),
    (sym_expression, STATE 9883), (sym_primary_expression, STATE 7326),
    (sym_comptime_expression, STATE 7017), (sym_transfer_expression, STATE 7017),
    (sym_not_operator, STATE 7969), (sym_boolean_operator, STATE 7969),
    (sym_binary_operator, STATE 7017), (sym_unary_operator, STATE 7017),
    (sym_comparison_operator, STATE 7969), (sym_lambda, STATE 7969),
    (sym_assignment, STATE 12425), (sym_augmented_assignment, STATE 12425),
    (sym_pattern_list, STATE 8578), (sym_yield, STATE 12425), (sym_attribute, STATE 6836),
    (sym_subscript, STATE 6838), (sym_call, STATE 6845), (sym_mlir_type, STATE 7017),
    (sym_list, STATE 7017), (sym_set, STATE 7017), (sym_tuple, STATE 7017),
    (sym_dictionary, STATE 7017), (sym_struct_literal, STATE 7017),
    (sym_list_comprehension, STATE 7017), (sym_dictionary_comprehension, STATE 7017),
    (sym_set_comprehension, STATE 7017), (sym_generator_expression, STATE 7017),
    (sym_parenthesized_expression, STATE 7017), (sym_conditional_expression, STATE 7969),
    (sym_concatenated_string, STATE 7017), (sym_string, STATE 6751), (sym_await, STATE 7017),
    (aux_sym_module_repeat1, STATE 927), (aux_sym_decorated_definition_repeat1, STATE 3670),
    (sym_identifier, ACTIONS 9), (anon_sym_import, ACTIONS 11), (anon_sym_from, ACTIONS 13),
    (anon_sym_LPAREN, ACTIONS 15), (anon_sym_STAR, ACTIONS 17), (anon_sym_print, ACTIONS 19),
    (anon_sym_comptime, ACTIONS 99), (anon_sym_assert, ACTIONS 23),
    (anon_sym___comptime_assert, ACTIONS 25), (anon_sym_return, ACTIONS 27),
    (anon_sym_del, ACTIONS 29), (anon_sym_raise, ACTIONS 31), (anon_sym_pass, ACTIONS 33),
    (anon_sym_break, ACTIONS 35), (anon_sym_continue, ACTIONS 37),
    (anon_sym___extension, ACTIONS 101), (anon_sym___mlir_region, ACTIONS 103),
    (anon_sym_if, ACTIONS 105), (anon_sym_match, ACTIONS 107), (anon_sym_async, ACTIONS 109),
    (anon_sym_for, ACTIONS 111), (anon_sym_while, ACTIONS 113), (anon_sym_try, ACTIONS 115),
    (anon_sym_with, ACTIONS 117), (anon_sym_def, ACTIONS 119), (anon_sym_fn, ACTIONS 119),
    (anon_sym_LBRACK, ACTIONS 59), (anon_sym_LBRACE, ACTIONS 61), (anon_sym_global, ACTIONS 63),
    (anon_sym_nonlocal, ACTIONS 65), (anon_sym_exec, ACTIONS 67), (anon_sym_type, ACTIONS 69),
    (anon_sym_class, ACTIONS 121), (anon_sym_struct, ACTIONS 121), (anon_sym_mut, ACTIONS 73),
    (anon_sym_out, ACTIONS 73), (anon_sym_trait, ACTIONS 123), (anon_sym_AT, ACTIONS 77),
    (anon_sym_DASH, ACTIONS 79), (anon_sym_PLUS, ACTIONS 79), (anon_sym_ref, ACTIONS 81),
    (anon_sym_var, ACTIONS 81), (anon_sym_not, ACTIONS 83), (anon_sym_TILDE, ACTIONS 79),
    (anon_sym_lambda, ACTIONS 85), (anon_sym_yield, ACTIONS 87), (sym_ellipsis, ACTIONS 89),
    (anon_sym___mlir_type, ACTIONS 91), (sym_integer, ACTIONS 93), (sym_float, ACTIONS 89),
    (anon_sym_await, ACTIONS 95), (sym_true, ACTIONS 93), (sym_false, ACTIONS 93),
    (sym_none, ACTIONS 93), (sym_comment, ACTIONS 3), (sym_line_continuation, ACTIONS 3),
    (sym__dedent, ACTIONS 125), (sym_string_start, ACTIONS 97)]"

definition parse_table_725 :: "(nat \<times> nat) list" where "parse_table_725 = [
    (sym__statement, STATE 927), (sym__simple_statements, STATE 927),
    (sym_import_statement, STATE 11814), (sym_future_import_statement, STATE 11814),
    (sym_import_from_statement, STATE 11814), (sym_print_statement, STATE 11814),
    (sym_assert_statement, STATE 11814), (sym_comptime_assert_statement, STATE 11814),
    (sym_expression_statement, STATE 11814), (sym_tuple_expression, STATE 12425),
    (sym_named_expression, STATE 7969), (sym__named_expression_lhs, STATE 12752),
    (sym_return_statement, STATE 11814), (sym_delete_statement, STATE 11814),
    (sym_raise_statement, STATE 11814), (sym_pass_statement, STATE 11814),
    (sym_break_statement, STATE 11814), (sym_continue_statement, STATE 11814),
    (sym_extension_definition, STATE 927), (sym_mlir_region, STATE 927),
    (sym_comptime_statement, STATE 927), (sym_if_statement, STATE 927),
    (sym_match_statement, STATE 927), (sym_for_statement, STATE 927),
    (sym_while_statement, STATE 927), (sym_try_statement, STATE 927),
    (sym_with_statement, STATE 927), (sym_function_definition, STATE 927),
    (sym_global_statement, STATE 11814), (sym_nonlocal_statement, STATE 11814),
    (sym_exec_statement, STATE 11814), (sym_type_alias_statement, STATE 11814),
    (sym_parameterized_alias_statement, STATE 11814), (sym_class_definition, STATE 927),
    (sym_trait_definition, STATE 927), (sym_decorated_definition, STATE 927),
    (sym_decorator, STATE 3670), (sym_block, STATE 6192), (sym_pattern, STATE 8086),
    (sym_tuple_pattern, STATE 8101), (sym_list_pattern, STATE 8101),
    (sym_list_splat_pattern, STATE 6819), (sym_as_pattern, STATE 7969),
    (sym_expression, STATE 9883), (sym_primary_expression, STATE 7326),
    (sym_comptime_expression, STATE 7017), (sym_transfer_expression, STATE 7017),
    (sym_not_operator, STATE 7969), (sym_boolean_operator, STATE 7969),
    (sym_binary_operator, STATE 7017), (sym_unary_operator, STATE 7017),
    (sym_comparison_operator, STATE 7969), (sym_lambda, STATE 7969),
    (sym_assignment, STATE 12425), (sym_augmented_assignment, STATE 12425),
    (sym_pattern_list, STATE 8578), (sym_yield, STATE 12425), (sym_attribute, STATE 6836),
    (sym_subscript, STATE 6838), (sym_call, STATE 6845), (sym_mlir_type, STATE 7017),
    (sym_list, STATE 7017), (sym_set, STATE 7017), (sym_tuple, STATE 7017),
    (sym_dictionary, STATE 7017), (sym_struct_literal, STATE 7017),
    (sym_list_comprehension, STATE 7017), (sym_dictionary_comprehension, STATE 7017),
    (sym_set_comprehension, STATE 7017), (sym_generator_expression, STATE 7017),
    (sym_parenthesized_expression, STATE 7017), (sym_conditional_expression, STATE 7969),
    (sym_concatenated_string, STATE 7017), (sym_string, STATE 6751), (sym_await, STATE 7017),
    (aux_sym_module_repeat1, STATE 927), (aux_sym_decorated_definition_repeat1, STATE 3670),
    (sym_identifier, ACTIONS 9), (anon_sym_import, ACTIONS 11), (anon_sym_from, ACTIONS 13),
    (anon_sym_LPAREN, ACTIONS 15), (anon_sym_STAR, ACTIONS 17), (anon_sym_print, ACTIONS 19),
    (anon_sym_comptime, ACTIONS 99), (anon_sym_assert, ACTIONS 23),
    (anon_sym___comptime_assert, ACTIONS 25), (anon_sym_return, ACTIONS 27),
    (anon_sym_del, ACTIONS 29), (anon_sym_raise, ACTIONS 31), (anon_sym_pass, ACTIONS 33),
    (anon_sym_break, ACTIONS 35), (anon_sym_continue, ACTIONS 37),
    (anon_sym___extension, ACTIONS 101), (anon_sym___mlir_region, ACTIONS 103),
    (anon_sym_if, ACTIONS 105), (anon_sym_match, ACTIONS 107), (anon_sym_async, ACTIONS 109),
    (anon_sym_for, ACTIONS 111), (anon_sym_while, ACTIONS 113), (anon_sym_try, ACTIONS 115),
    (anon_sym_with, ACTIONS 117), (anon_sym_def, ACTIONS 119), (anon_sym_fn, ACTIONS 119),
    (anon_sym_LBRACK, ACTIONS 59), (anon_sym_LBRACE, ACTIONS 61), (anon_sym_global, ACTIONS 63),
    (anon_sym_nonlocal, ACTIONS 65), (anon_sym_exec, ACTIONS 67), (anon_sym_type, ACTIONS 69),
    (anon_sym_class, ACTIONS 121), (anon_sym_struct, ACTIONS 121), (anon_sym_mut, ACTIONS 73),
    (anon_sym_out, ACTIONS 73), (anon_sym_trait, ACTIONS 123), (anon_sym_AT, ACTIONS 77),
    (anon_sym_DASH, ACTIONS 79), (anon_sym_PLUS, ACTIONS 79), (anon_sym_ref, ACTIONS 81),
    (anon_sym_var, ACTIONS 81), (anon_sym_not, ACTIONS 83), (anon_sym_TILDE, ACTIONS 79),
    (anon_sym_lambda, ACTIONS 85), (anon_sym_yield, ACTIONS 87), (sym_ellipsis, ACTIONS 89),
    (anon_sym___mlir_type, ACTIONS 91), (sym_integer, ACTIONS 93), (sym_float, ACTIONS 89),
    (anon_sym_await, ACTIONS 95), (sym_true, ACTIONS 93), (sym_false, ACTIONS 93),
    (sym_none, ACTIONS 93), (sym_comment, ACTIONS 3), (sym_line_continuation, ACTIONS 3),
    (sym__dedent, ACTIONS 125), (sym_string_start, ACTIONS 97)]"

definition parse_table_726 :: "(nat \<times> nat) list" where "parse_table_726 = [
    (sym__statement, STATE 927), (sym__simple_statements, STATE 927),
    (sym_import_statement, STATE 11814), (sym_future_import_statement, STATE 11814),
    (sym_import_from_statement, STATE 11814), (sym_print_statement, STATE 11814),
    (sym_assert_statement, STATE 11814), (sym_comptime_assert_statement, STATE 11814),
    (sym_expression_statement, STATE 11814), (sym_tuple_expression, STATE 12425),
    (sym_named_expression, STATE 7969), (sym__named_expression_lhs, STATE 12752),
    (sym_return_statement, STATE 11814), (sym_delete_statement, STATE 11814),
    (sym_raise_statement, STATE 11814), (sym_pass_statement, STATE 11814),
    (sym_break_statement, STATE 11814), (sym_continue_statement, STATE 11814),
    (sym_extension_definition, STATE 927), (sym_mlir_region, STATE 927),
    (sym_comptime_statement, STATE 927), (sym_if_statement, STATE 927),
    (sym_match_statement, STATE 927), (sym_for_statement, STATE 927),
    (sym_while_statement, STATE 927), (sym_try_statement, STATE 927),
    (sym_with_statement, STATE 927), (sym_function_definition, STATE 927),
    (sym_global_statement, STATE 11814), (sym_nonlocal_statement, STATE 11814),
    (sym_exec_statement, STATE 11814), (sym_type_alias_statement, STATE 11814),
    (sym_parameterized_alias_statement, STATE 11814), (sym_class_definition, STATE 927),
    (sym_trait_definition, STATE 927), (sym_decorated_definition, STATE 927),
    (sym_decorator, STATE 3670), (sym_block, STATE 6193), (sym_pattern, STATE 8086),
    (sym_tuple_pattern, STATE 8101), (sym_list_pattern, STATE 8101),
    (sym_list_splat_pattern, STATE 6819), (sym_as_pattern, STATE 7969),
    (sym_expression, STATE 9883), (sym_primary_expression, STATE 7326),
    (sym_comptime_expression, STATE 7017), (sym_transfer_expression, STATE 7017),
    (sym_not_operator, STATE 7969), (sym_boolean_operator, STATE 7969),
    (sym_binary_operator, STATE 7017), (sym_unary_operator, STATE 7017),
    (sym_comparison_operator, STATE 7969), (sym_lambda, STATE 7969),
    (sym_assignment, STATE 12425), (sym_augmented_assignment, STATE 12425),
    (sym_pattern_list, STATE 8578), (sym_yield, STATE 12425), (sym_attribute, STATE 6836),
    (sym_subscript, STATE 6838), (sym_call, STATE 6845), (sym_mlir_type, STATE 7017),
    (sym_list, STATE 7017), (sym_set, STATE 7017), (sym_tuple, STATE 7017),
    (sym_dictionary, STATE 7017), (sym_struct_literal, STATE 7017),
    (sym_list_comprehension, STATE 7017), (sym_dictionary_comprehension, STATE 7017),
    (sym_set_comprehension, STATE 7017), (sym_generator_expression, STATE 7017),
    (sym_parenthesized_expression, STATE 7017), (sym_conditional_expression, STATE 7969),
    (sym_concatenated_string, STATE 7017), (sym_string, STATE 6751), (sym_await, STATE 7017),
    (aux_sym_module_repeat1, STATE 927), (aux_sym_decorated_definition_repeat1, STATE 3670),
    (sym_identifier, ACTIONS 9), (anon_sym_import, ACTIONS 11), (anon_sym_from, ACTIONS 13),
    (anon_sym_LPAREN, ACTIONS 15), (anon_sym_STAR, ACTIONS 17), (anon_sym_print, ACTIONS 19),
    (anon_sym_comptime, ACTIONS 99), (anon_sym_assert, ACTIONS 23),
    (anon_sym___comptime_assert, ACTIONS 25), (anon_sym_return, ACTIONS 27),
    (anon_sym_del, ACTIONS 29), (anon_sym_raise, ACTIONS 31), (anon_sym_pass, ACTIONS 33),
    (anon_sym_break, ACTIONS 35), (anon_sym_continue, ACTIONS 37),
    (anon_sym___extension, ACTIONS 101), (anon_sym___mlir_region, ACTIONS 103),
    (anon_sym_if, ACTIONS 105), (anon_sym_match, ACTIONS 107), (anon_sym_async, ACTIONS 109),
    (anon_sym_for, ACTIONS 111), (anon_sym_while, ACTIONS 113), (anon_sym_try, ACTIONS 115),
    (anon_sym_with, ACTIONS 117), (anon_sym_def, ACTIONS 119), (anon_sym_fn, ACTIONS 119),
    (anon_sym_LBRACK, ACTIONS 59), (anon_sym_LBRACE, ACTIONS 61), (anon_sym_global, ACTIONS 63),
    (anon_sym_nonlocal, ACTIONS 65), (anon_sym_exec, ACTIONS 67), (anon_sym_type, ACTIONS 69),
    (anon_sym_class, ACTIONS 121), (anon_sym_struct, ACTIONS 121), (anon_sym_mut, ACTIONS 73),
    (anon_sym_out, ACTIONS 73), (anon_sym_trait, ACTIONS 123), (anon_sym_AT, ACTIONS 77),
    (anon_sym_DASH, ACTIONS 79), (anon_sym_PLUS, ACTIONS 79), (anon_sym_ref, ACTIONS 81),
    (anon_sym_var, ACTIONS 81), (anon_sym_not, ACTIONS 83), (anon_sym_TILDE, ACTIONS 79),
    (anon_sym_lambda, ACTIONS 85), (anon_sym_yield, ACTIONS 87), (sym_ellipsis, ACTIONS 89),
    (anon_sym___mlir_type, ACTIONS 91), (sym_integer, ACTIONS 93), (sym_float, ACTIONS 89),
    (anon_sym_await, ACTIONS 95), (sym_true, ACTIONS 93), (sym_false, ACTIONS 93),
    (sym_none, ACTIONS 93), (sym_comment, ACTIONS 3), (sym_line_continuation, ACTIONS 3),
    (sym__dedent, ACTIONS 125), (sym_string_start, ACTIONS 97)]"

definition parse_table_727 :: "(nat \<times> nat) list" where "parse_table_727 = [
    (sym__statement, STATE 927), (sym__simple_statements, STATE 927),
    (sym_import_statement, STATE 11814), (sym_future_import_statement, STATE 11814),
    (sym_import_from_statement, STATE 11814), (sym_print_statement, STATE 11814),
    (sym_assert_statement, STATE 11814), (sym_comptime_assert_statement, STATE 11814),
    (sym_expression_statement, STATE 11814), (sym_tuple_expression, STATE 12425),
    (sym_named_expression, STATE 7969), (sym__named_expression_lhs, STATE 12752),
    (sym_return_statement, STATE 11814), (sym_delete_statement, STATE 11814),
    (sym_raise_statement, STATE 11814), (sym_pass_statement, STATE 11814),
    (sym_break_statement, STATE 11814), (sym_continue_statement, STATE 11814),
    (sym_extension_definition, STATE 927), (sym_mlir_region, STATE 927),
    (sym_comptime_statement, STATE 927), (sym_if_statement, STATE 927),
    (sym_match_statement, STATE 927), (sym_for_statement, STATE 927),
    (sym_while_statement, STATE 927), (sym_try_statement, STATE 927),
    (sym_with_statement, STATE 927), (sym_function_definition, STATE 927),
    (sym_global_statement, STATE 11814), (sym_nonlocal_statement, STATE 11814),
    (sym_exec_statement, STATE 11814), (sym_type_alias_statement, STATE 11814),
    (sym_parameterized_alias_statement, STATE 11814), (sym_class_definition, STATE 927),
    (sym_trait_definition, STATE 927), (sym_decorated_definition, STATE 927),
    (sym_decorator, STATE 3670), (sym_block, STATE 6199), (sym_pattern, STATE 8086),
    (sym_tuple_pattern, STATE 8101), (sym_list_pattern, STATE 8101),
    (sym_list_splat_pattern, STATE 6819), (sym_as_pattern, STATE 7969),
    (sym_expression, STATE 9883), (sym_primary_expression, STATE 7326),
    (sym_comptime_expression, STATE 7017), (sym_transfer_expression, STATE 7017),
    (sym_not_operator, STATE 7969), (sym_boolean_operator, STATE 7969),
    (sym_binary_operator, STATE 7017), (sym_unary_operator, STATE 7017),
    (sym_comparison_operator, STATE 7969), (sym_lambda, STATE 7969),
    (sym_assignment, STATE 12425), (sym_augmented_assignment, STATE 12425),
    (sym_pattern_list, STATE 8578), (sym_yield, STATE 12425), (sym_attribute, STATE 6836),
    (sym_subscript, STATE 6838), (sym_call, STATE 6845), (sym_mlir_type, STATE 7017),
    (sym_list, STATE 7017), (sym_set, STATE 7017), (sym_tuple, STATE 7017),
    (sym_dictionary, STATE 7017), (sym_struct_literal, STATE 7017),
    (sym_list_comprehension, STATE 7017), (sym_dictionary_comprehension, STATE 7017),
    (sym_set_comprehension, STATE 7017), (sym_generator_expression, STATE 7017),
    (sym_parenthesized_expression, STATE 7017), (sym_conditional_expression, STATE 7969),
    (sym_concatenated_string, STATE 7017), (sym_string, STATE 6751), (sym_await, STATE 7017),
    (aux_sym_module_repeat1, STATE 927), (aux_sym_decorated_definition_repeat1, STATE 3670),
    (sym_identifier, ACTIONS 9), (anon_sym_import, ACTIONS 11), (anon_sym_from, ACTIONS 13),
    (anon_sym_LPAREN, ACTIONS 15), (anon_sym_STAR, ACTIONS 17), (anon_sym_print, ACTIONS 19),
    (anon_sym_comptime, ACTIONS 99), (anon_sym_assert, ACTIONS 23),
    (anon_sym___comptime_assert, ACTIONS 25), (anon_sym_return, ACTIONS 27),
    (anon_sym_del, ACTIONS 29), (anon_sym_raise, ACTIONS 31), (anon_sym_pass, ACTIONS 33),
    (anon_sym_break, ACTIONS 35), (anon_sym_continue, ACTIONS 37),
    (anon_sym___extension, ACTIONS 101), (anon_sym___mlir_region, ACTIONS 103),
    (anon_sym_if, ACTIONS 105), (anon_sym_match, ACTIONS 107), (anon_sym_async, ACTIONS 109),
    (anon_sym_for, ACTIONS 111), (anon_sym_while, ACTIONS 113), (anon_sym_try, ACTIONS 115),
    (anon_sym_with, ACTIONS 117), (anon_sym_def, ACTIONS 119), (anon_sym_fn, ACTIONS 119),
    (anon_sym_LBRACK, ACTIONS 59), (anon_sym_LBRACE, ACTIONS 61), (anon_sym_global, ACTIONS 63),
    (anon_sym_nonlocal, ACTIONS 65), (anon_sym_exec, ACTIONS 67), (anon_sym_type, ACTIONS 69),
    (anon_sym_class, ACTIONS 121), (anon_sym_struct, ACTIONS 121), (anon_sym_mut, ACTIONS 73),
    (anon_sym_out, ACTIONS 73), (anon_sym_trait, ACTIONS 123), (anon_sym_AT, ACTIONS 77),
    (anon_sym_DASH, ACTIONS 79), (anon_sym_PLUS, ACTIONS 79), (anon_sym_ref, ACTIONS 81),
    (anon_sym_var, ACTIONS 81), (anon_sym_not, ACTIONS 83), (anon_sym_TILDE, ACTIONS 79),
    (anon_sym_lambda, ACTIONS 85), (anon_sym_yield, ACTIONS 87), (sym_ellipsis, ACTIONS 89),
    (anon_sym___mlir_type, ACTIONS 91), (sym_integer, ACTIONS 93), (sym_float, ACTIONS 89),
    (anon_sym_await, ACTIONS 95), (sym_true, ACTIONS 93), (sym_false, ACTIONS 93),
    (sym_none, ACTIONS 93), (sym_comment, ACTIONS 3), (sym_line_continuation, ACTIONS 3),
    (sym__dedent, ACTIONS 125), (sym_string_start, ACTIONS 97)]"

definition parse_table_728 :: "(nat \<times> nat) list" where "parse_table_728 = [
    (sym__statement, STATE 927), (sym__simple_statements, STATE 927),
    (sym_import_statement, STATE 11814), (sym_future_import_statement, STATE 11814),
    (sym_import_from_statement, STATE 11814), (sym_print_statement, STATE 11814),
    (sym_assert_statement, STATE 11814), (sym_comptime_assert_statement, STATE 11814),
    (sym_expression_statement, STATE 11814), (sym_tuple_expression, STATE 12425),
    (sym_named_expression, STATE 7969), (sym__named_expression_lhs, STATE 12752),
    (sym_return_statement, STATE 11814), (sym_delete_statement, STATE 11814),
    (sym_raise_statement, STATE 11814), (sym_pass_statement, STATE 11814),
    (sym_break_statement, STATE 11814), (sym_continue_statement, STATE 11814),
    (sym_extension_definition, STATE 927), (sym_mlir_region, STATE 927),
    (sym_comptime_statement, STATE 927), (sym_if_statement, STATE 927),
    (sym_match_statement, STATE 927), (sym_for_statement, STATE 927),
    (sym_while_statement, STATE 927), (sym_try_statement, STATE 927),
    (sym_with_statement, STATE 927), (sym_function_definition, STATE 927),
    (sym_global_statement, STATE 11814), (sym_nonlocal_statement, STATE 11814),
    (sym_exec_statement, STATE 11814), (sym_type_alias_statement, STATE 11814),
    (sym_parameterized_alias_statement, STATE 11814), (sym_class_definition, STATE 927),
    (sym_trait_definition, STATE 927), (sym_decorated_definition, STATE 927),
    (sym_decorator, STATE 3670), (sym_block, STATE 6207), (sym_pattern, STATE 8086),
    (sym_tuple_pattern, STATE 8101), (sym_list_pattern, STATE 8101),
    (sym_list_splat_pattern, STATE 6819), (sym_as_pattern, STATE 7969),
    (sym_expression, STATE 9883), (sym_primary_expression, STATE 7326),
    (sym_comptime_expression, STATE 7017), (sym_transfer_expression, STATE 7017),
    (sym_not_operator, STATE 7969), (sym_boolean_operator, STATE 7969),
    (sym_binary_operator, STATE 7017), (sym_unary_operator, STATE 7017),
    (sym_comparison_operator, STATE 7969), (sym_lambda, STATE 7969),
    (sym_assignment, STATE 12425), (sym_augmented_assignment, STATE 12425),
    (sym_pattern_list, STATE 8578), (sym_yield, STATE 12425), (sym_attribute, STATE 6836),
    (sym_subscript, STATE 6838), (sym_call, STATE 6845), (sym_mlir_type, STATE 7017),
    (sym_list, STATE 7017), (sym_set, STATE 7017), (sym_tuple, STATE 7017),
    (sym_dictionary, STATE 7017), (sym_struct_literal, STATE 7017),
    (sym_list_comprehension, STATE 7017), (sym_dictionary_comprehension, STATE 7017),
    (sym_set_comprehension, STATE 7017), (sym_generator_expression, STATE 7017),
    (sym_parenthesized_expression, STATE 7017), (sym_conditional_expression, STATE 7969),
    (sym_concatenated_string, STATE 7017), (sym_string, STATE 6751), (sym_await, STATE 7017),
    (aux_sym_module_repeat1, STATE 927), (aux_sym_decorated_definition_repeat1, STATE 3670),
    (sym_identifier, ACTIONS 9), (anon_sym_import, ACTIONS 11), (anon_sym_from, ACTIONS 13),
    (anon_sym_LPAREN, ACTIONS 15), (anon_sym_STAR, ACTIONS 17), (anon_sym_print, ACTIONS 19),
    (anon_sym_comptime, ACTIONS 99), (anon_sym_assert, ACTIONS 23),
    (anon_sym___comptime_assert, ACTIONS 25), (anon_sym_return, ACTIONS 27),
    (anon_sym_del, ACTIONS 29), (anon_sym_raise, ACTIONS 31), (anon_sym_pass, ACTIONS 33),
    (anon_sym_break, ACTIONS 35), (anon_sym_continue, ACTIONS 37),
    (anon_sym___extension, ACTIONS 101), (anon_sym___mlir_region, ACTIONS 103),
    (anon_sym_if, ACTIONS 105), (anon_sym_match, ACTIONS 107), (anon_sym_async, ACTIONS 109),
    (anon_sym_for, ACTIONS 111), (anon_sym_while, ACTIONS 113), (anon_sym_try, ACTIONS 115),
    (anon_sym_with, ACTIONS 117), (anon_sym_def, ACTIONS 119), (anon_sym_fn, ACTIONS 119),
    (anon_sym_LBRACK, ACTIONS 59), (anon_sym_LBRACE, ACTIONS 61), (anon_sym_global, ACTIONS 63),
    (anon_sym_nonlocal, ACTIONS 65), (anon_sym_exec, ACTIONS 67), (anon_sym_type, ACTIONS 69),
    (anon_sym_class, ACTIONS 121), (anon_sym_struct, ACTIONS 121), (anon_sym_mut, ACTIONS 73),
    (anon_sym_out, ACTIONS 73), (anon_sym_trait, ACTIONS 123), (anon_sym_AT, ACTIONS 77),
    (anon_sym_DASH, ACTIONS 79), (anon_sym_PLUS, ACTIONS 79), (anon_sym_ref, ACTIONS 81),
    (anon_sym_var, ACTIONS 81), (anon_sym_not, ACTIONS 83), (anon_sym_TILDE, ACTIONS 79),
    (anon_sym_lambda, ACTIONS 85), (anon_sym_yield, ACTIONS 87), (sym_ellipsis, ACTIONS 89),
    (anon_sym___mlir_type, ACTIONS 91), (sym_integer, ACTIONS 93), (sym_float, ACTIONS 89),
    (anon_sym_await, ACTIONS 95), (sym_true, ACTIONS 93), (sym_false, ACTIONS 93),
    (sym_none, ACTIONS 93), (sym_comment, ACTIONS 3), (sym_line_continuation, ACTIONS 3),
    (sym__dedent, ACTIONS 125), (sym_string_start, ACTIONS 97)]"

definition parse_table_729 :: "(nat \<times> nat) list" where "parse_table_729 = [
    (sym__statement, STATE 927), (sym__simple_statements, STATE 927),
    (sym_import_statement, STATE 11814), (sym_future_import_statement, STATE 11814),
    (sym_import_from_statement, STATE 11814), (sym_print_statement, STATE 11814),
    (sym_assert_statement, STATE 11814), (sym_comptime_assert_statement, STATE 11814),
    (sym_expression_statement, STATE 11814), (sym_tuple_expression, STATE 12425),
    (sym_named_expression, STATE 7969), (sym__named_expression_lhs, STATE 12752),
    (sym_return_statement, STATE 11814), (sym_delete_statement, STATE 11814),
    (sym_raise_statement, STATE 11814), (sym_pass_statement, STATE 11814),
    (sym_break_statement, STATE 11814), (sym_continue_statement, STATE 11814),
    (sym_extension_definition, STATE 927), (sym_mlir_region, STATE 927),
    (sym_comptime_statement, STATE 927), (sym_if_statement, STATE 927),
    (sym_match_statement, STATE 927), (sym_for_statement, STATE 927),
    (sym_while_statement, STATE 927), (sym_try_statement, STATE 927),
    (sym_with_statement, STATE 927), (sym_function_definition, STATE 927),
    (sym_global_statement, STATE 11814), (sym_nonlocal_statement, STATE 11814),
    (sym_exec_statement, STATE 11814), (sym_type_alias_statement, STATE 11814),
    (sym_parameterized_alias_statement, STATE 11814), (sym_class_definition, STATE 927),
    (sym_trait_definition, STATE 927), (sym_decorated_definition, STATE 927),
    (sym_decorator, STATE 3670), (sym_block, STATE 6216), (sym_pattern, STATE 8086),
    (sym_tuple_pattern, STATE 8101), (sym_list_pattern, STATE 8101),
    (sym_list_splat_pattern, STATE 6819), (sym_as_pattern, STATE 7969),
    (sym_expression, STATE 9883), (sym_primary_expression, STATE 7326),
    (sym_comptime_expression, STATE 7017), (sym_transfer_expression, STATE 7017),
    (sym_not_operator, STATE 7969), (sym_boolean_operator, STATE 7969),
    (sym_binary_operator, STATE 7017), (sym_unary_operator, STATE 7017),
    (sym_comparison_operator, STATE 7969), (sym_lambda, STATE 7969),
    (sym_assignment, STATE 12425), (sym_augmented_assignment, STATE 12425),
    (sym_pattern_list, STATE 8578), (sym_yield, STATE 12425), (sym_attribute, STATE 6836),
    (sym_subscript, STATE 6838), (sym_call, STATE 6845), (sym_mlir_type, STATE 7017),
    (sym_list, STATE 7017), (sym_set, STATE 7017), (sym_tuple, STATE 7017),
    (sym_dictionary, STATE 7017), (sym_struct_literal, STATE 7017),
    (sym_list_comprehension, STATE 7017), (sym_dictionary_comprehension, STATE 7017),
    (sym_set_comprehension, STATE 7017), (sym_generator_expression, STATE 7017),
    (sym_parenthesized_expression, STATE 7017), (sym_conditional_expression, STATE 7969),
    (sym_concatenated_string, STATE 7017), (sym_string, STATE 6751), (sym_await, STATE 7017),
    (aux_sym_module_repeat1, STATE 927), (aux_sym_decorated_definition_repeat1, STATE 3670),
    (sym_identifier, ACTIONS 9), (anon_sym_import, ACTIONS 11), (anon_sym_from, ACTIONS 13),
    (anon_sym_LPAREN, ACTIONS 15), (anon_sym_STAR, ACTIONS 17), (anon_sym_print, ACTIONS 19),
    (anon_sym_comptime, ACTIONS 99), (anon_sym_assert, ACTIONS 23),
    (anon_sym___comptime_assert, ACTIONS 25), (anon_sym_return, ACTIONS 27),
    (anon_sym_del, ACTIONS 29), (anon_sym_raise, ACTIONS 31), (anon_sym_pass, ACTIONS 33),
    (anon_sym_break, ACTIONS 35), (anon_sym_continue, ACTIONS 37),
    (anon_sym___extension, ACTIONS 101), (anon_sym___mlir_region, ACTIONS 103),
    (anon_sym_if, ACTIONS 105), (anon_sym_match, ACTIONS 107), (anon_sym_async, ACTIONS 109),
    (anon_sym_for, ACTIONS 111), (anon_sym_while, ACTIONS 113), (anon_sym_try, ACTIONS 115),
    (anon_sym_with, ACTIONS 117), (anon_sym_def, ACTIONS 119), (anon_sym_fn, ACTIONS 119),
    (anon_sym_LBRACK, ACTIONS 59), (anon_sym_LBRACE, ACTIONS 61), (anon_sym_global, ACTIONS 63),
    (anon_sym_nonlocal, ACTIONS 65), (anon_sym_exec, ACTIONS 67), (anon_sym_type, ACTIONS 69),
    (anon_sym_class, ACTIONS 121), (anon_sym_struct, ACTIONS 121), (anon_sym_mut, ACTIONS 73),
    (anon_sym_out, ACTIONS 73), (anon_sym_trait, ACTIONS 123), (anon_sym_AT, ACTIONS 77),
    (anon_sym_DASH, ACTIONS 79), (anon_sym_PLUS, ACTIONS 79), (anon_sym_ref, ACTIONS 81),
    (anon_sym_var, ACTIONS 81), (anon_sym_not, ACTIONS 83), (anon_sym_TILDE, ACTIONS 79),
    (anon_sym_lambda, ACTIONS 85), (anon_sym_yield, ACTIONS 87), (sym_ellipsis, ACTIONS 89),
    (anon_sym___mlir_type, ACTIONS 91), (sym_integer, ACTIONS 93), (sym_float, ACTIONS 89),
    (anon_sym_await, ACTIONS 95), (sym_true, ACTIONS 93), (sym_false, ACTIONS 93),
    (sym_none, ACTIONS 93), (sym_comment, ACTIONS 3), (sym_line_continuation, ACTIONS 3),
    (sym__dedent, ACTIONS 125), (sym_string_start, ACTIONS 97)]"

definition parse_table_730 :: "(nat \<times> nat) list" where "parse_table_730 = [
    (sym__statement, STATE 927), (sym__simple_statements, STATE 927),
    (sym_import_statement, STATE 11814), (sym_future_import_statement, STATE 11814),
    (sym_import_from_statement, STATE 11814), (sym_print_statement, STATE 11814),
    (sym_assert_statement, STATE 11814), (sym_comptime_assert_statement, STATE 11814),
    (sym_expression_statement, STATE 11814), (sym_tuple_expression, STATE 12425),
    (sym_named_expression, STATE 7969), (sym__named_expression_lhs, STATE 12752),
    (sym_return_statement, STATE 11814), (sym_delete_statement, STATE 11814),
    (sym_raise_statement, STATE 11814), (sym_pass_statement, STATE 11814),
    (sym_break_statement, STATE 11814), (sym_continue_statement, STATE 11814),
    (sym_extension_definition, STATE 927), (sym_mlir_region, STATE 927),
    (sym_comptime_statement, STATE 927), (sym_if_statement, STATE 927),
    (sym_match_statement, STATE 927), (sym_for_statement, STATE 927),
    (sym_while_statement, STATE 927), (sym_try_statement, STATE 927),
    (sym_with_statement, STATE 927), (sym_function_definition, STATE 927),
    (sym_global_statement, STATE 11814), (sym_nonlocal_statement, STATE 11814),
    (sym_exec_statement, STATE 11814), (sym_type_alias_statement, STATE 11814),
    (sym_parameterized_alias_statement, STATE 11814), (sym_class_definition, STATE 927),
    (sym_trait_definition, STATE 927), (sym_decorated_definition, STATE 927),
    (sym_decorator, STATE 3670), (sym_block, STATE 6228), (sym_pattern, STATE 8086),
    (sym_tuple_pattern, STATE 8101), (sym_list_pattern, STATE 8101),
    (sym_list_splat_pattern, STATE 6819), (sym_as_pattern, STATE 7969),
    (sym_expression, STATE 9883), (sym_primary_expression, STATE 7326),
    (sym_comptime_expression, STATE 7017), (sym_transfer_expression, STATE 7017),
    (sym_not_operator, STATE 7969), (sym_boolean_operator, STATE 7969),
    (sym_binary_operator, STATE 7017), (sym_unary_operator, STATE 7017),
    (sym_comparison_operator, STATE 7969), (sym_lambda, STATE 7969),
    (sym_assignment, STATE 12425), (sym_augmented_assignment, STATE 12425),
    (sym_pattern_list, STATE 8578), (sym_yield, STATE 12425), (sym_attribute, STATE 6836),
    (sym_subscript, STATE 6838), (sym_call, STATE 6845), (sym_mlir_type, STATE 7017),
    (sym_list, STATE 7017), (sym_set, STATE 7017), (sym_tuple, STATE 7017),
    (sym_dictionary, STATE 7017), (sym_struct_literal, STATE 7017),
    (sym_list_comprehension, STATE 7017), (sym_dictionary_comprehension, STATE 7017),
    (sym_set_comprehension, STATE 7017), (sym_generator_expression, STATE 7017),
    (sym_parenthesized_expression, STATE 7017), (sym_conditional_expression, STATE 7969),
    (sym_concatenated_string, STATE 7017), (sym_string, STATE 6751), (sym_await, STATE 7017),
    (aux_sym_module_repeat1, STATE 927), (aux_sym_decorated_definition_repeat1, STATE 3670),
    (sym_identifier, ACTIONS 9), (anon_sym_import, ACTIONS 11), (anon_sym_from, ACTIONS 13),
    (anon_sym_LPAREN, ACTIONS 15), (anon_sym_STAR, ACTIONS 17), (anon_sym_print, ACTIONS 19),
    (anon_sym_comptime, ACTIONS 99), (anon_sym_assert, ACTIONS 23),
    (anon_sym___comptime_assert, ACTIONS 25), (anon_sym_return, ACTIONS 27),
    (anon_sym_del, ACTIONS 29), (anon_sym_raise, ACTIONS 31), (anon_sym_pass, ACTIONS 33),
    (anon_sym_break, ACTIONS 35), (anon_sym_continue, ACTIONS 37),
    (anon_sym___extension, ACTIONS 101), (anon_sym___mlir_region, ACTIONS 103),
    (anon_sym_if, ACTIONS 105), (anon_sym_match, ACTIONS 107), (anon_sym_async, ACTIONS 109),
    (anon_sym_for, ACTIONS 111), (anon_sym_while, ACTIONS 113), (anon_sym_try, ACTIONS 115),
    (anon_sym_with, ACTIONS 117), (anon_sym_def, ACTIONS 119), (anon_sym_fn, ACTIONS 119),
    (anon_sym_LBRACK, ACTIONS 59), (anon_sym_LBRACE, ACTIONS 61), (anon_sym_global, ACTIONS 63),
    (anon_sym_nonlocal, ACTIONS 65), (anon_sym_exec, ACTIONS 67), (anon_sym_type, ACTIONS 69),
    (anon_sym_class, ACTIONS 121), (anon_sym_struct, ACTIONS 121), (anon_sym_mut, ACTIONS 73),
    (anon_sym_out, ACTIONS 73), (anon_sym_trait, ACTIONS 123), (anon_sym_AT, ACTIONS 77),
    (anon_sym_DASH, ACTIONS 79), (anon_sym_PLUS, ACTIONS 79), (anon_sym_ref, ACTIONS 81),
    (anon_sym_var, ACTIONS 81), (anon_sym_not, ACTIONS 83), (anon_sym_TILDE, ACTIONS 79),
    (anon_sym_lambda, ACTIONS 85), (anon_sym_yield, ACTIONS 87), (sym_ellipsis, ACTIONS 89),
    (anon_sym___mlir_type, ACTIONS 91), (sym_integer, ACTIONS 93), (sym_float, ACTIONS 89),
    (anon_sym_await, ACTIONS 95), (sym_true, ACTIONS 93), (sym_false, ACTIONS 93),
    (sym_none, ACTIONS 93), (sym_comment, ACTIONS 3), (sym_line_continuation, ACTIONS 3),
    (sym__dedent, ACTIONS 125), (sym_string_start, ACTIONS 97)]"

definition parse_table_731 :: "(nat \<times> nat) list" where "parse_table_731 = [
    (sym__statement, STATE 927), (sym__simple_statements, STATE 927),
    (sym_import_statement, STATE 11814), (sym_future_import_statement, STATE 11814),
    (sym_import_from_statement, STATE 11814), (sym_print_statement, STATE 11814),
    (sym_assert_statement, STATE 11814), (sym_comptime_assert_statement, STATE 11814),
    (sym_expression_statement, STATE 11814), (sym_tuple_expression, STATE 12425),
    (sym_named_expression, STATE 7969), (sym__named_expression_lhs, STATE 12752),
    (sym_return_statement, STATE 11814), (sym_delete_statement, STATE 11814),
    (sym_raise_statement, STATE 11814), (sym_pass_statement, STATE 11814),
    (sym_break_statement, STATE 11814), (sym_continue_statement, STATE 11814),
    (sym_extension_definition, STATE 927), (sym_mlir_region, STATE 927),
    (sym_comptime_statement, STATE 927), (sym_if_statement, STATE 927),
    (sym_match_statement, STATE 927), (sym_for_statement, STATE 927),
    (sym_while_statement, STATE 927), (sym_try_statement, STATE 927),
    (sym_with_statement, STATE 927), (sym_function_definition, STATE 927),
    (sym_global_statement, STATE 11814), (sym_nonlocal_statement, STATE 11814),
    (sym_exec_statement, STATE 11814), (sym_type_alias_statement, STATE 11814),
    (sym_parameterized_alias_statement, STATE 11814), (sym_class_definition, STATE 927),
    (sym_trait_definition, STATE 927), (sym_decorated_definition, STATE 927),
    (sym_decorator, STATE 3670), (sym_block, STATE 6236), (sym_pattern, STATE 8086),
    (sym_tuple_pattern, STATE 8101), (sym_list_pattern, STATE 8101),
    (sym_list_splat_pattern, STATE 6819), (sym_as_pattern, STATE 7969),
    (sym_expression, STATE 9883), (sym_primary_expression, STATE 7326),
    (sym_comptime_expression, STATE 7017), (sym_transfer_expression, STATE 7017),
    (sym_not_operator, STATE 7969), (sym_boolean_operator, STATE 7969),
    (sym_binary_operator, STATE 7017), (sym_unary_operator, STATE 7017),
    (sym_comparison_operator, STATE 7969), (sym_lambda, STATE 7969),
    (sym_assignment, STATE 12425), (sym_augmented_assignment, STATE 12425),
    (sym_pattern_list, STATE 8578), (sym_yield, STATE 12425), (sym_attribute, STATE 6836),
    (sym_subscript, STATE 6838), (sym_call, STATE 6845), (sym_mlir_type, STATE 7017),
    (sym_list, STATE 7017), (sym_set, STATE 7017), (sym_tuple, STATE 7017),
    (sym_dictionary, STATE 7017), (sym_struct_literal, STATE 7017),
    (sym_list_comprehension, STATE 7017), (sym_dictionary_comprehension, STATE 7017),
    (sym_set_comprehension, STATE 7017), (sym_generator_expression, STATE 7017),
    (sym_parenthesized_expression, STATE 7017), (sym_conditional_expression, STATE 7969),
    (sym_concatenated_string, STATE 7017), (sym_string, STATE 6751), (sym_await, STATE 7017),
    (aux_sym_module_repeat1, STATE 927), (aux_sym_decorated_definition_repeat1, STATE 3670),
    (sym_identifier, ACTIONS 9), (anon_sym_import, ACTIONS 11), (anon_sym_from, ACTIONS 13),
    (anon_sym_LPAREN, ACTIONS 15), (anon_sym_STAR, ACTIONS 17), (anon_sym_print, ACTIONS 19),
    (anon_sym_comptime, ACTIONS 99), (anon_sym_assert, ACTIONS 23),
    (anon_sym___comptime_assert, ACTIONS 25), (anon_sym_return, ACTIONS 27),
    (anon_sym_del, ACTIONS 29), (anon_sym_raise, ACTIONS 31), (anon_sym_pass, ACTIONS 33),
    (anon_sym_break, ACTIONS 35), (anon_sym_continue, ACTIONS 37),
    (anon_sym___extension, ACTIONS 101), (anon_sym___mlir_region, ACTIONS 103),
    (anon_sym_if, ACTIONS 105), (anon_sym_match, ACTIONS 107), (anon_sym_async, ACTIONS 109),
    (anon_sym_for, ACTIONS 111), (anon_sym_while, ACTIONS 113), (anon_sym_try, ACTIONS 115),
    (anon_sym_with, ACTIONS 117), (anon_sym_def, ACTIONS 119), (anon_sym_fn, ACTIONS 119),
    (anon_sym_LBRACK, ACTIONS 59), (anon_sym_LBRACE, ACTIONS 61), (anon_sym_global, ACTIONS 63),
    (anon_sym_nonlocal, ACTIONS 65), (anon_sym_exec, ACTIONS 67), (anon_sym_type, ACTIONS 69),
    (anon_sym_class, ACTIONS 121), (anon_sym_struct, ACTIONS 121), (anon_sym_mut, ACTIONS 73),
    (anon_sym_out, ACTIONS 73), (anon_sym_trait, ACTIONS 123), (anon_sym_AT, ACTIONS 77),
    (anon_sym_DASH, ACTIONS 79), (anon_sym_PLUS, ACTIONS 79), (anon_sym_ref, ACTIONS 81),
    (anon_sym_var, ACTIONS 81), (anon_sym_not, ACTIONS 83), (anon_sym_TILDE, ACTIONS 79),
    (anon_sym_lambda, ACTIONS 85), (anon_sym_yield, ACTIONS 87), (sym_ellipsis, ACTIONS 89),
    (anon_sym___mlir_type, ACTIONS 91), (sym_integer, ACTIONS 93), (sym_float, ACTIONS 89),
    (anon_sym_await, ACTIONS 95), (sym_true, ACTIONS 93), (sym_false, ACTIONS 93),
    (sym_none, ACTIONS 93), (sym_comment, ACTIONS 3), (sym_line_continuation, ACTIONS 3),
    (sym__dedent, ACTIONS 125), (sym_string_start, ACTIONS 97)]"

definition parse_table_732 :: "(nat \<times> nat) list" where "parse_table_732 = [
    (sym__statement, STATE 927), (sym__simple_statements, STATE 927),
    (sym_import_statement, STATE 11814), (sym_future_import_statement, STATE 11814),
    (sym_import_from_statement, STATE 11814), (sym_print_statement, STATE 11814),
    (sym_assert_statement, STATE 11814), (sym_comptime_assert_statement, STATE 11814),
    (sym_expression_statement, STATE 11814), (sym_tuple_expression, STATE 12425),
    (sym_named_expression, STATE 7969), (sym__named_expression_lhs, STATE 12752),
    (sym_return_statement, STATE 11814), (sym_delete_statement, STATE 11814),
    (sym_raise_statement, STATE 11814), (sym_pass_statement, STATE 11814),
    (sym_break_statement, STATE 11814), (sym_continue_statement, STATE 11814),
    (sym_extension_definition, STATE 927), (sym_mlir_region, STATE 927),
    (sym_comptime_statement, STATE 927), (sym_if_statement, STATE 927),
    (sym_match_statement, STATE 927), (sym_for_statement, STATE 927),
    (sym_while_statement, STATE 927), (sym_try_statement, STATE 927),
    (sym_with_statement, STATE 927), (sym_function_definition, STATE 927),
    (sym_global_statement, STATE 11814), (sym_nonlocal_statement, STATE 11814),
    (sym_exec_statement, STATE 11814), (sym_type_alias_statement, STATE 11814),
    (sym_parameterized_alias_statement, STATE 11814), (sym_class_definition, STATE 927),
    (sym_trait_definition, STATE 927), (sym_decorated_definition, STATE 927),
    (sym_decorator, STATE 3670), (sym_block, STATE 6237), (sym_pattern, STATE 8086),
    (sym_tuple_pattern, STATE 8101), (sym_list_pattern, STATE 8101),
    (sym_list_splat_pattern, STATE 6819), (sym_as_pattern, STATE 7969),
    (sym_expression, STATE 9883), (sym_primary_expression, STATE 7326),
    (sym_comptime_expression, STATE 7017), (sym_transfer_expression, STATE 7017),
    (sym_not_operator, STATE 7969), (sym_boolean_operator, STATE 7969),
    (sym_binary_operator, STATE 7017), (sym_unary_operator, STATE 7017),
    (sym_comparison_operator, STATE 7969), (sym_lambda, STATE 7969),
    (sym_assignment, STATE 12425), (sym_augmented_assignment, STATE 12425),
    (sym_pattern_list, STATE 8578), (sym_yield, STATE 12425), (sym_attribute, STATE 6836),
    (sym_subscript, STATE 6838), (sym_call, STATE 6845), (sym_mlir_type, STATE 7017),
    (sym_list, STATE 7017), (sym_set, STATE 7017), (sym_tuple, STATE 7017),
    (sym_dictionary, STATE 7017), (sym_struct_literal, STATE 7017),
    (sym_list_comprehension, STATE 7017), (sym_dictionary_comprehension, STATE 7017),
    (sym_set_comprehension, STATE 7017), (sym_generator_expression, STATE 7017),
    (sym_parenthesized_expression, STATE 7017), (sym_conditional_expression, STATE 7969),
    (sym_concatenated_string, STATE 7017), (sym_string, STATE 6751), (sym_await, STATE 7017),
    (aux_sym_module_repeat1, STATE 927), (aux_sym_decorated_definition_repeat1, STATE 3670),
    (sym_identifier, ACTIONS 9), (anon_sym_import, ACTIONS 11), (anon_sym_from, ACTIONS 13),
    (anon_sym_LPAREN, ACTIONS 15), (anon_sym_STAR, ACTIONS 17), (anon_sym_print, ACTIONS 19),
    (anon_sym_comptime, ACTIONS 99), (anon_sym_assert, ACTIONS 23),
    (anon_sym___comptime_assert, ACTIONS 25), (anon_sym_return, ACTIONS 27),
    (anon_sym_del, ACTIONS 29), (anon_sym_raise, ACTIONS 31), (anon_sym_pass, ACTIONS 33),
    (anon_sym_break, ACTIONS 35), (anon_sym_continue, ACTIONS 37),
    (anon_sym___extension, ACTIONS 101), (anon_sym___mlir_region, ACTIONS 103),
    (anon_sym_if, ACTIONS 105), (anon_sym_match, ACTIONS 107), (anon_sym_async, ACTIONS 109),
    (anon_sym_for, ACTIONS 111), (anon_sym_while, ACTIONS 113), (anon_sym_try, ACTIONS 115),
    (anon_sym_with, ACTIONS 117), (anon_sym_def, ACTIONS 119), (anon_sym_fn, ACTIONS 119),
    (anon_sym_LBRACK, ACTIONS 59), (anon_sym_LBRACE, ACTIONS 61), (anon_sym_global, ACTIONS 63),
    (anon_sym_nonlocal, ACTIONS 65), (anon_sym_exec, ACTIONS 67), (anon_sym_type, ACTIONS 69),
    (anon_sym_class, ACTIONS 121), (anon_sym_struct, ACTIONS 121), (anon_sym_mut, ACTIONS 73),
    (anon_sym_out, ACTIONS 73), (anon_sym_trait, ACTIONS 123), (anon_sym_AT, ACTIONS 77),
    (anon_sym_DASH, ACTIONS 79), (anon_sym_PLUS, ACTIONS 79), (anon_sym_ref, ACTIONS 81),
    (anon_sym_var, ACTIONS 81), (anon_sym_not, ACTIONS 83), (anon_sym_TILDE, ACTIONS 79),
    (anon_sym_lambda, ACTIONS 85), (anon_sym_yield, ACTIONS 87), (sym_ellipsis, ACTIONS 89),
    (anon_sym___mlir_type, ACTIONS 91), (sym_integer, ACTIONS 93), (sym_float, ACTIONS 89),
    (anon_sym_await, ACTIONS 95), (sym_true, ACTIONS 93), (sym_false, ACTIONS 93),
    (sym_none, ACTIONS 93), (sym_comment, ACTIONS 3), (sym_line_continuation, ACTIONS 3),
    (sym__dedent, ACTIONS 125), (sym_string_start, ACTIONS 97)]"

definition parse_table_733 :: "(nat \<times> nat) list" where "parse_table_733 = [
    (sym__statement, STATE 927), (sym__simple_statements, STATE 927),
    (sym_import_statement, STATE 11814), (sym_future_import_statement, STATE 11814),
    (sym_import_from_statement, STATE 11814), (sym_print_statement, STATE 11814),
    (sym_assert_statement, STATE 11814), (sym_comptime_assert_statement, STATE 11814),
    (sym_expression_statement, STATE 11814), (sym_tuple_expression, STATE 12425),
    (sym_named_expression, STATE 7969), (sym__named_expression_lhs, STATE 12752),
    (sym_return_statement, STATE 11814), (sym_delete_statement, STATE 11814),
    (sym_raise_statement, STATE 11814), (sym_pass_statement, STATE 11814),
    (sym_break_statement, STATE 11814), (sym_continue_statement, STATE 11814),
    (sym_extension_definition, STATE 927), (sym_mlir_region, STATE 927),
    (sym_comptime_statement, STATE 927), (sym_if_statement, STATE 927),
    (sym_match_statement, STATE 927), (sym_for_statement, STATE 927),
    (sym_while_statement, STATE 927), (sym_try_statement, STATE 927),
    (sym_with_statement, STATE 927), (sym_function_definition, STATE 927),
    (sym_global_statement, STATE 11814), (sym_nonlocal_statement, STATE 11814),
    (sym_exec_statement, STATE 11814), (sym_type_alias_statement, STATE 11814),
    (sym_parameterized_alias_statement, STATE 11814), (sym_class_definition, STATE 927),
    (sym_trait_definition, STATE 927), (sym_decorated_definition, STATE 927),
    (sym_decorator, STATE 3670), (sym_block, STATE 6240), (sym_pattern, STATE 8086),
    (sym_tuple_pattern, STATE 8101), (sym_list_pattern, STATE 8101),
    (sym_list_splat_pattern, STATE 6819), (sym_as_pattern, STATE 7969),
    (sym_expression, STATE 9883), (sym_primary_expression, STATE 7326),
    (sym_comptime_expression, STATE 7017), (sym_transfer_expression, STATE 7017),
    (sym_not_operator, STATE 7969), (sym_boolean_operator, STATE 7969),
    (sym_binary_operator, STATE 7017), (sym_unary_operator, STATE 7017),
    (sym_comparison_operator, STATE 7969), (sym_lambda, STATE 7969),
    (sym_assignment, STATE 12425), (sym_augmented_assignment, STATE 12425),
    (sym_pattern_list, STATE 8578), (sym_yield, STATE 12425), (sym_attribute, STATE 6836),
    (sym_subscript, STATE 6838), (sym_call, STATE 6845), (sym_mlir_type, STATE 7017),
    (sym_list, STATE 7017), (sym_set, STATE 7017), (sym_tuple, STATE 7017),
    (sym_dictionary, STATE 7017), (sym_struct_literal, STATE 7017),
    (sym_list_comprehension, STATE 7017), (sym_dictionary_comprehension, STATE 7017),
    (sym_set_comprehension, STATE 7017), (sym_generator_expression, STATE 7017),
    (sym_parenthesized_expression, STATE 7017), (sym_conditional_expression, STATE 7969),
    (sym_concatenated_string, STATE 7017), (sym_string, STATE 6751), (sym_await, STATE 7017),
    (aux_sym_module_repeat1, STATE 927), (aux_sym_decorated_definition_repeat1, STATE 3670),
    (sym_identifier, ACTIONS 9), (anon_sym_import, ACTIONS 11), (anon_sym_from, ACTIONS 13),
    (anon_sym_LPAREN, ACTIONS 15), (anon_sym_STAR, ACTIONS 17), (anon_sym_print, ACTIONS 19),
    (anon_sym_comptime, ACTIONS 99), (anon_sym_assert, ACTIONS 23),
    (anon_sym___comptime_assert, ACTIONS 25), (anon_sym_return, ACTIONS 27),
    (anon_sym_del, ACTIONS 29), (anon_sym_raise, ACTIONS 31), (anon_sym_pass, ACTIONS 33),
    (anon_sym_break, ACTIONS 35), (anon_sym_continue, ACTIONS 37),
    (anon_sym___extension, ACTIONS 101), (anon_sym___mlir_region, ACTIONS 103),
    (anon_sym_if, ACTIONS 105), (anon_sym_match, ACTIONS 107), (anon_sym_async, ACTIONS 109),
    (anon_sym_for, ACTIONS 111), (anon_sym_while, ACTIONS 113), (anon_sym_try, ACTIONS 115),
    (anon_sym_with, ACTIONS 117), (anon_sym_def, ACTIONS 119), (anon_sym_fn, ACTIONS 119),
    (anon_sym_LBRACK, ACTIONS 59), (anon_sym_LBRACE, ACTIONS 61), (anon_sym_global, ACTIONS 63),
    (anon_sym_nonlocal, ACTIONS 65), (anon_sym_exec, ACTIONS 67), (anon_sym_type, ACTIONS 69),
    (anon_sym_class, ACTIONS 121), (anon_sym_struct, ACTIONS 121), (anon_sym_mut, ACTIONS 73),
    (anon_sym_out, ACTIONS 73), (anon_sym_trait, ACTIONS 123), (anon_sym_AT, ACTIONS 77),
    (anon_sym_DASH, ACTIONS 79), (anon_sym_PLUS, ACTIONS 79), (anon_sym_ref, ACTIONS 81),
    (anon_sym_var, ACTIONS 81), (anon_sym_not, ACTIONS 83), (anon_sym_TILDE, ACTIONS 79),
    (anon_sym_lambda, ACTIONS 85), (anon_sym_yield, ACTIONS 87), (sym_ellipsis, ACTIONS 89),
    (anon_sym___mlir_type, ACTIONS 91), (sym_integer, ACTIONS 93), (sym_float, ACTIONS 89),
    (anon_sym_await, ACTIONS 95), (sym_true, ACTIONS 93), (sym_false, ACTIONS 93),
    (sym_none, ACTIONS 93), (sym_comment, ACTIONS 3), (sym_line_continuation, ACTIONS 3),
    (sym__dedent, ACTIONS 125), (sym_string_start, ACTIONS 97)]"

definition parse_table_734 :: "(nat \<times> nat) list" where "parse_table_734 = [
    (sym__statement, STATE 927), (sym__simple_statements, STATE 927),
    (sym_import_statement, STATE 11814), (sym_future_import_statement, STATE 11814),
    (sym_import_from_statement, STATE 11814), (sym_print_statement, STATE 11814),
    (sym_assert_statement, STATE 11814), (sym_comptime_assert_statement, STATE 11814),
    (sym_expression_statement, STATE 11814), (sym_tuple_expression, STATE 12425),
    (sym_named_expression, STATE 7969), (sym__named_expression_lhs, STATE 12752),
    (sym_return_statement, STATE 11814), (sym_delete_statement, STATE 11814),
    (sym_raise_statement, STATE 11814), (sym_pass_statement, STATE 11814),
    (sym_break_statement, STATE 11814), (sym_continue_statement, STATE 11814),
    (sym_extension_definition, STATE 927), (sym_mlir_region, STATE 927),
    (sym_comptime_statement, STATE 927), (sym_if_statement, STATE 927),
    (sym_match_statement, STATE 927), (sym_for_statement, STATE 927),
    (sym_while_statement, STATE 927), (sym_try_statement, STATE 927),
    (sym_with_statement, STATE 927), (sym_function_definition, STATE 927),
    (sym_global_statement, STATE 11814), (sym_nonlocal_statement, STATE 11814),
    (sym_exec_statement, STATE 11814), (sym_type_alias_statement, STATE 11814),
    (sym_parameterized_alias_statement, STATE 11814), (sym_class_definition, STATE 927),
    (sym_trait_definition, STATE 927), (sym_decorated_definition, STATE 927),
    (sym_decorator, STATE 3670), (sym_block, STATE 6247), (sym_pattern, STATE 8086),
    (sym_tuple_pattern, STATE 8101), (sym_list_pattern, STATE 8101),
    (sym_list_splat_pattern, STATE 6819), (sym_as_pattern, STATE 7969),
    (sym_expression, STATE 9883), (sym_primary_expression, STATE 7326),
    (sym_comptime_expression, STATE 7017), (sym_transfer_expression, STATE 7017),
    (sym_not_operator, STATE 7969), (sym_boolean_operator, STATE 7969),
    (sym_binary_operator, STATE 7017), (sym_unary_operator, STATE 7017),
    (sym_comparison_operator, STATE 7969), (sym_lambda, STATE 7969),
    (sym_assignment, STATE 12425), (sym_augmented_assignment, STATE 12425),
    (sym_pattern_list, STATE 8578), (sym_yield, STATE 12425), (sym_attribute, STATE 6836),
    (sym_subscript, STATE 6838), (sym_call, STATE 6845), (sym_mlir_type, STATE 7017),
    (sym_list, STATE 7017), (sym_set, STATE 7017), (sym_tuple, STATE 7017),
    (sym_dictionary, STATE 7017), (sym_struct_literal, STATE 7017),
    (sym_list_comprehension, STATE 7017), (sym_dictionary_comprehension, STATE 7017),
    (sym_set_comprehension, STATE 7017), (sym_generator_expression, STATE 7017),
    (sym_parenthesized_expression, STATE 7017), (sym_conditional_expression, STATE 7969),
    (sym_concatenated_string, STATE 7017), (sym_string, STATE 6751), (sym_await, STATE 7017),
    (aux_sym_module_repeat1, STATE 927), (aux_sym_decorated_definition_repeat1, STATE 3670),
    (sym_identifier, ACTIONS 9), (anon_sym_import, ACTIONS 11), (anon_sym_from, ACTIONS 13),
    (anon_sym_LPAREN, ACTIONS 15), (anon_sym_STAR, ACTIONS 17), (anon_sym_print, ACTIONS 19),
    (anon_sym_comptime, ACTIONS 99), (anon_sym_assert, ACTIONS 23),
    (anon_sym___comptime_assert, ACTIONS 25), (anon_sym_return, ACTIONS 27),
    (anon_sym_del, ACTIONS 29), (anon_sym_raise, ACTIONS 31), (anon_sym_pass, ACTIONS 33),
    (anon_sym_break, ACTIONS 35), (anon_sym_continue, ACTIONS 37),
    (anon_sym___extension, ACTIONS 101), (anon_sym___mlir_region, ACTIONS 103),
    (anon_sym_if, ACTIONS 105), (anon_sym_match, ACTIONS 107), (anon_sym_async, ACTIONS 109),
    (anon_sym_for, ACTIONS 111), (anon_sym_while, ACTIONS 113), (anon_sym_try, ACTIONS 115),
    (anon_sym_with, ACTIONS 117), (anon_sym_def, ACTIONS 119), (anon_sym_fn, ACTIONS 119),
    (anon_sym_LBRACK, ACTIONS 59), (anon_sym_LBRACE, ACTIONS 61), (anon_sym_global, ACTIONS 63),
    (anon_sym_nonlocal, ACTIONS 65), (anon_sym_exec, ACTIONS 67), (anon_sym_type, ACTIONS 69),
    (anon_sym_class, ACTIONS 121), (anon_sym_struct, ACTIONS 121), (anon_sym_mut, ACTIONS 73),
    (anon_sym_out, ACTIONS 73), (anon_sym_trait, ACTIONS 123), (anon_sym_AT, ACTIONS 77),
    (anon_sym_DASH, ACTIONS 79), (anon_sym_PLUS, ACTIONS 79), (anon_sym_ref, ACTIONS 81),
    (anon_sym_var, ACTIONS 81), (anon_sym_not, ACTIONS 83), (anon_sym_TILDE, ACTIONS 79),
    (anon_sym_lambda, ACTIONS 85), (anon_sym_yield, ACTIONS 87), (sym_ellipsis, ACTIONS 89),
    (anon_sym___mlir_type, ACTIONS 91), (sym_integer, ACTIONS 93), (sym_float, ACTIONS 89),
    (anon_sym_await, ACTIONS 95), (sym_true, ACTIONS 93), (sym_false, ACTIONS 93),
    (sym_none, ACTIONS 93), (sym_comment, ACTIONS 3), (sym_line_continuation, ACTIONS 3),
    (sym__dedent, ACTIONS 125), (sym_string_start, ACTIONS 97)]"

definition parse_table_735 :: "(nat \<times> nat) list" where "parse_table_735 = [
    (sym__statement, STATE 927), (sym__simple_statements, STATE 927),
    (sym_import_statement, STATE 11814), (sym_future_import_statement, STATE 11814),
    (sym_import_from_statement, STATE 11814), (sym_print_statement, STATE 11814),
    (sym_assert_statement, STATE 11814), (sym_comptime_assert_statement, STATE 11814),
    (sym_expression_statement, STATE 11814), (sym_tuple_expression, STATE 12425),
    (sym_named_expression, STATE 7969), (sym__named_expression_lhs, STATE 12752),
    (sym_return_statement, STATE 11814), (sym_delete_statement, STATE 11814),
    (sym_raise_statement, STATE 11814), (sym_pass_statement, STATE 11814),
    (sym_break_statement, STATE 11814), (sym_continue_statement, STATE 11814),
    (sym_extension_definition, STATE 927), (sym_mlir_region, STATE 927),
    (sym_comptime_statement, STATE 927), (sym_if_statement, STATE 927),
    (sym_match_statement, STATE 927), (sym_for_statement, STATE 927),
    (sym_while_statement, STATE 927), (sym_try_statement, STATE 927),
    (sym_with_statement, STATE 927), (sym_function_definition, STATE 927),
    (sym_global_statement, STATE 11814), (sym_nonlocal_statement, STATE 11814),
    (sym_exec_statement, STATE 11814), (sym_type_alias_statement, STATE 11814),
    (sym_parameterized_alias_statement, STATE 11814), (sym_class_definition, STATE 927),
    (sym_trait_definition, STATE 927), (sym_decorated_definition, STATE 927),
    (sym_decorator, STATE 3670), (sym_block, STATE 6258), (sym_pattern, STATE 8086),
    (sym_tuple_pattern, STATE 8101), (sym_list_pattern, STATE 8101),
    (sym_list_splat_pattern, STATE 6819), (sym_as_pattern, STATE 7969),
    (sym_expression, STATE 9883), (sym_primary_expression, STATE 7326),
    (sym_comptime_expression, STATE 7017), (sym_transfer_expression, STATE 7017),
    (sym_not_operator, STATE 7969), (sym_boolean_operator, STATE 7969),
    (sym_binary_operator, STATE 7017), (sym_unary_operator, STATE 7017),
    (sym_comparison_operator, STATE 7969), (sym_lambda, STATE 7969),
    (sym_assignment, STATE 12425), (sym_augmented_assignment, STATE 12425),
    (sym_pattern_list, STATE 8578), (sym_yield, STATE 12425), (sym_attribute, STATE 6836),
    (sym_subscript, STATE 6838), (sym_call, STATE 6845), (sym_mlir_type, STATE 7017),
    (sym_list, STATE 7017), (sym_set, STATE 7017), (sym_tuple, STATE 7017),
    (sym_dictionary, STATE 7017), (sym_struct_literal, STATE 7017),
    (sym_list_comprehension, STATE 7017), (sym_dictionary_comprehension, STATE 7017),
    (sym_set_comprehension, STATE 7017), (sym_generator_expression, STATE 7017),
    (sym_parenthesized_expression, STATE 7017), (sym_conditional_expression, STATE 7969),
    (sym_concatenated_string, STATE 7017), (sym_string, STATE 6751), (sym_await, STATE 7017),
    (aux_sym_module_repeat1, STATE 927), (aux_sym_decorated_definition_repeat1, STATE 3670),
    (sym_identifier, ACTIONS 9), (anon_sym_import, ACTIONS 11), (anon_sym_from, ACTIONS 13),
    (anon_sym_LPAREN, ACTIONS 15), (anon_sym_STAR, ACTIONS 17), (anon_sym_print, ACTIONS 19),
    (anon_sym_comptime, ACTIONS 99), (anon_sym_assert, ACTIONS 23),
    (anon_sym___comptime_assert, ACTIONS 25), (anon_sym_return, ACTIONS 27),
    (anon_sym_del, ACTIONS 29), (anon_sym_raise, ACTIONS 31), (anon_sym_pass, ACTIONS 33),
    (anon_sym_break, ACTIONS 35), (anon_sym_continue, ACTIONS 37),
    (anon_sym___extension, ACTIONS 101), (anon_sym___mlir_region, ACTIONS 103),
    (anon_sym_if, ACTIONS 105), (anon_sym_match, ACTIONS 107), (anon_sym_async, ACTIONS 109),
    (anon_sym_for, ACTIONS 111), (anon_sym_while, ACTIONS 113), (anon_sym_try, ACTIONS 115),
    (anon_sym_with, ACTIONS 117), (anon_sym_def, ACTIONS 119), (anon_sym_fn, ACTIONS 119),
    (anon_sym_LBRACK, ACTIONS 59), (anon_sym_LBRACE, ACTIONS 61), (anon_sym_global, ACTIONS 63),
    (anon_sym_nonlocal, ACTIONS 65), (anon_sym_exec, ACTIONS 67), (anon_sym_type, ACTIONS 69),
    (anon_sym_class, ACTIONS 121), (anon_sym_struct, ACTIONS 121), (anon_sym_mut, ACTIONS 73),
    (anon_sym_out, ACTIONS 73), (anon_sym_trait, ACTIONS 123), (anon_sym_AT, ACTIONS 77),
    (anon_sym_DASH, ACTIONS 79), (anon_sym_PLUS, ACTIONS 79), (anon_sym_ref, ACTIONS 81),
    (anon_sym_var, ACTIONS 81), (anon_sym_not, ACTIONS 83), (anon_sym_TILDE, ACTIONS 79),
    (anon_sym_lambda, ACTIONS 85), (anon_sym_yield, ACTIONS 87), (sym_ellipsis, ACTIONS 89),
    (anon_sym___mlir_type, ACTIONS 91), (sym_integer, ACTIONS 93), (sym_float, ACTIONS 89),
    (anon_sym_await, ACTIONS 95), (sym_true, ACTIONS 93), (sym_false, ACTIONS 93),
    (sym_none, ACTIONS 93), (sym_comment, ACTIONS 3), (sym_line_continuation, ACTIONS 3),
    (sym__dedent, ACTIONS 125), (sym_string_start, ACTIONS 97)]"

definition parse_table_736 :: "(nat \<times> nat) list" where "parse_table_736 = [
    (sym__statement, STATE 927), (sym__simple_statements, STATE 927),
    (sym_import_statement, STATE 11814), (sym_future_import_statement, STATE 11814),
    (sym_import_from_statement, STATE 11814), (sym_print_statement, STATE 11814),
    (sym_assert_statement, STATE 11814), (sym_comptime_assert_statement, STATE 11814),
    (sym_expression_statement, STATE 11814), (sym_tuple_expression, STATE 12425),
    (sym_named_expression, STATE 7969), (sym__named_expression_lhs, STATE 12752),
    (sym_return_statement, STATE 11814), (sym_delete_statement, STATE 11814),
    (sym_raise_statement, STATE 11814), (sym_pass_statement, STATE 11814),
    (sym_break_statement, STATE 11814), (sym_continue_statement, STATE 11814),
    (sym_extension_definition, STATE 927), (sym_mlir_region, STATE 927),
    (sym_comptime_statement, STATE 927), (sym_if_statement, STATE 927),
    (sym_match_statement, STATE 927), (sym_for_statement, STATE 927),
    (sym_while_statement, STATE 927), (sym_try_statement, STATE 927),
    (sym_with_statement, STATE 927), (sym_function_definition, STATE 927),
    (sym_global_statement, STATE 11814), (sym_nonlocal_statement, STATE 11814),
    (sym_exec_statement, STATE 11814), (sym_type_alias_statement, STATE 11814),
    (sym_parameterized_alias_statement, STATE 11814), (sym_class_definition, STATE 927),
    (sym_trait_definition, STATE 927), (sym_decorated_definition, STATE 927),
    (sym_decorator, STATE 3670), (sym_block, STATE 6259), (sym_pattern, STATE 8086),
    (sym_tuple_pattern, STATE 8101), (sym_list_pattern, STATE 8101),
    (sym_list_splat_pattern, STATE 6819), (sym_as_pattern, STATE 7969),
    (sym_expression, STATE 9883), (sym_primary_expression, STATE 7326),
    (sym_comptime_expression, STATE 7017), (sym_transfer_expression, STATE 7017),
    (sym_not_operator, STATE 7969), (sym_boolean_operator, STATE 7969),
    (sym_binary_operator, STATE 7017), (sym_unary_operator, STATE 7017),
    (sym_comparison_operator, STATE 7969), (sym_lambda, STATE 7969),
    (sym_assignment, STATE 12425), (sym_augmented_assignment, STATE 12425),
    (sym_pattern_list, STATE 8578), (sym_yield, STATE 12425), (sym_attribute, STATE 6836),
    (sym_subscript, STATE 6838), (sym_call, STATE 6845), (sym_mlir_type, STATE 7017),
    (sym_list, STATE 7017), (sym_set, STATE 7017), (sym_tuple, STATE 7017),
    (sym_dictionary, STATE 7017), (sym_struct_literal, STATE 7017),
    (sym_list_comprehension, STATE 7017), (sym_dictionary_comprehension, STATE 7017),
    (sym_set_comprehension, STATE 7017), (sym_generator_expression, STATE 7017),
    (sym_parenthesized_expression, STATE 7017), (sym_conditional_expression, STATE 7969),
    (sym_concatenated_string, STATE 7017), (sym_string, STATE 6751), (sym_await, STATE 7017),
    (aux_sym_module_repeat1, STATE 927), (aux_sym_decorated_definition_repeat1, STATE 3670),
    (sym_identifier, ACTIONS 9), (anon_sym_import, ACTIONS 11), (anon_sym_from, ACTIONS 13),
    (anon_sym_LPAREN, ACTIONS 15), (anon_sym_STAR, ACTIONS 17), (anon_sym_print, ACTIONS 19),
    (anon_sym_comptime, ACTIONS 99), (anon_sym_assert, ACTIONS 23),
    (anon_sym___comptime_assert, ACTIONS 25), (anon_sym_return, ACTIONS 27),
    (anon_sym_del, ACTIONS 29), (anon_sym_raise, ACTIONS 31), (anon_sym_pass, ACTIONS 33),
    (anon_sym_break, ACTIONS 35), (anon_sym_continue, ACTIONS 37),
    (anon_sym___extension, ACTIONS 101), (anon_sym___mlir_region, ACTIONS 103),
    (anon_sym_if, ACTIONS 105), (anon_sym_match, ACTIONS 107), (anon_sym_async, ACTIONS 109),
    (anon_sym_for, ACTIONS 111), (anon_sym_while, ACTIONS 113), (anon_sym_try, ACTIONS 115),
    (anon_sym_with, ACTIONS 117), (anon_sym_def, ACTIONS 119), (anon_sym_fn, ACTIONS 119),
    (anon_sym_LBRACK, ACTIONS 59), (anon_sym_LBRACE, ACTIONS 61), (anon_sym_global, ACTIONS 63),
    (anon_sym_nonlocal, ACTIONS 65), (anon_sym_exec, ACTIONS 67), (anon_sym_type, ACTIONS 69),
    (anon_sym_class, ACTIONS 121), (anon_sym_struct, ACTIONS 121), (anon_sym_mut, ACTIONS 73),
    (anon_sym_out, ACTIONS 73), (anon_sym_trait, ACTIONS 123), (anon_sym_AT, ACTIONS 77),
    (anon_sym_DASH, ACTIONS 79), (anon_sym_PLUS, ACTIONS 79), (anon_sym_ref, ACTIONS 81),
    (anon_sym_var, ACTIONS 81), (anon_sym_not, ACTIONS 83), (anon_sym_TILDE, ACTIONS 79),
    (anon_sym_lambda, ACTIONS 85), (anon_sym_yield, ACTIONS 87), (sym_ellipsis, ACTIONS 89),
    (anon_sym___mlir_type, ACTIONS 91), (sym_integer, ACTIONS 93), (sym_float, ACTIONS 89),
    (anon_sym_await, ACTIONS 95), (sym_true, ACTIONS 93), (sym_false, ACTIONS 93),
    (sym_none, ACTIONS 93), (sym_comment, ACTIONS 3), (sym_line_continuation, ACTIONS 3),
    (sym__dedent, ACTIONS 125), (sym_string_start, ACTIONS 97)]"

definition parse_table_737 :: "(nat \<times> nat) list" where "parse_table_737 = [
    (sym__statement, STATE 927), (sym__simple_statements, STATE 927),
    (sym_import_statement, STATE 11814), (sym_future_import_statement, STATE 11814),
    (sym_import_from_statement, STATE 11814), (sym_print_statement, STATE 11814),
    (sym_assert_statement, STATE 11814), (sym_comptime_assert_statement, STATE 11814),
    (sym_expression_statement, STATE 11814), (sym_tuple_expression, STATE 12425),
    (sym_named_expression, STATE 7969), (sym__named_expression_lhs, STATE 12752),
    (sym_return_statement, STATE 11814), (sym_delete_statement, STATE 11814),
    (sym_raise_statement, STATE 11814), (sym_pass_statement, STATE 11814),
    (sym_break_statement, STATE 11814), (sym_continue_statement, STATE 11814),
    (sym_extension_definition, STATE 927), (sym_mlir_region, STATE 927),
    (sym_comptime_statement, STATE 927), (sym_if_statement, STATE 927),
    (sym_match_statement, STATE 927), (sym_for_statement, STATE 927),
    (sym_while_statement, STATE 927), (sym_try_statement, STATE 927),
    (sym_with_statement, STATE 927), (sym_function_definition, STATE 927),
    (sym_global_statement, STATE 11814), (sym_nonlocal_statement, STATE 11814),
    (sym_exec_statement, STATE 11814), (sym_type_alias_statement, STATE 11814),
    (sym_parameterized_alias_statement, STATE 11814), (sym_class_definition, STATE 927),
    (sym_trait_definition, STATE 927), (sym_decorated_definition, STATE 927),
    (sym_decorator, STATE 3670), (sym_block, STATE 6265), (sym_pattern, STATE 8086),
    (sym_tuple_pattern, STATE 8101), (sym_list_pattern, STATE 8101),
    (sym_list_splat_pattern, STATE 6819), (sym_as_pattern, STATE 7969),
    (sym_expression, STATE 9883), (sym_primary_expression, STATE 7326),
    (sym_comptime_expression, STATE 7017), (sym_transfer_expression, STATE 7017),
    (sym_not_operator, STATE 7969), (sym_boolean_operator, STATE 7969),
    (sym_binary_operator, STATE 7017), (sym_unary_operator, STATE 7017),
    (sym_comparison_operator, STATE 7969), (sym_lambda, STATE 7969),
    (sym_assignment, STATE 12425), (sym_augmented_assignment, STATE 12425),
    (sym_pattern_list, STATE 8578), (sym_yield, STATE 12425), (sym_attribute, STATE 6836),
    (sym_subscript, STATE 6838), (sym_call, STATE 6845), (sym_mlir_type, STATE 7017),
    (sym_list, STATE 7017), (sym_set, STATE 7017), (sym_tuple, STATE 7017),
    (sym_dictionary, STATE 7017), (sym_struct_literal, STATE 7017),
    (sym_list_comprehension, STATE 7017), (sym_dictionary_comprehension, STATE 7017),
    (sym_set_comprehension, STATE 7017), (sym_generator_expression, STATE 7017),
    (sym_parenthesized_expression, STATE 7017), (sym_conditional_expression, STATE 7969),
    (sym_concatenated_string, STATE 7017), (sym_string, STATE 6751), (sym_await, STATE 7017),
    (aux_sym_module_repeat1, STATE 927), (aux_sym_decorated_definition_repeat1, STATE 3670),
    (sym_identifier, ACTIONS 9), (anon_sym_import, ACTIONS 11), (anon_sym_from, ACTIONS 13),
    (anon_sym_LPAREN, ACTIONS 15), (anon_sym_STAR, ACTIONS 17), (anon_sym_print, ACTIONS 19),
    (anon_sym_comptime, ACTIONS 99), (anon_sym_assert, ACTIONS 23),
    (anon_sym___comptime_assert, ACTIONS 25), (anon_sym_return, ACTIONS 27),
    (anon_sym_del, ACTIONS 29), (anon_sym_raise, ACTIONS 31), (anon_sym_pass, ACTIONS 33),
    (anon_sym_break, ACTIONS 35), (anon_sym_continue, ACTIONS 37),
    (anon_sym___extension, ACTIONS 101), (anon_sym___mlir_region, ACTIONS 103),
    (anon_sym_if, ACTIONS 105), (anon_sym_match, ACTIONS 107), (anon_sym_async, ACTIONS 109),
    (anon_sym_for, ACTIONS 111), (anon_sym_while, ACTIONS 113), (anon_sym_try, ACTIONS 115),
    (anon_sym_with, ACTIONS 117), (anon_sym_def, ACTIONS 119), (anon_sym_fn, ACTIONS 119),
    (anon_sym_LBRACK, ACTIONS 59), (anon_sym_LBRACE, ACTIONS 61), (anon_sym_global, ACTIONS 63),
    (anon_sym_nonlocal, ACTIONS 65), (anon_sym_exec, ACTIONS 67), (anon_sym_type, ACTIONS 69),
    (anon_sym_class, ACTIONS 121), (anon_sym_struct, ACTIONS 121), (anon_sym_mut, ACTIONS 73),
    (anon_sym_out, ACTIONS 73), (anon_sym_trait, ACTIONS 123), (anon_sym_AT, ACTIONS 77),
    (anon_sym_DASH, ACTIONS 79), (anon_sym_PLUS, ACTIONS 79), (anon_sym_ref, ACTIONS 81),
    (anon_sym_var, ACTIONS 81), (anon_sym_not, ACTIONS 83), (anon_sym_TILDE, ACTIONS 79),
    (anon_sym_lambda, ACTIONS 85), (anon_sym_yield, ACTIONS 87), (sym_ellipsis, ACTIONS 89),
    (anon_sym___mlir_type, ACTIONS 91), (sym_integer, ACTIONS 93), (sym_float, ACTIONS 89),
    (anon_sym_await, ACTIONS 95), (sym_true, ACTIONS 93), (sym_false, ACTIONS 93),
    (sym_none, ACTIONS 93), (sym_comment, ACTIONS 3), (sym_line_continuation, ACTIONS 3),
    (sym__dedent, ACTIONS 125), (sym_string_start, ACTIONS 97)]"

definition parse_table_738 :: "(nat \<times> nat) list" where "parse_table_738 = [
    (sym__statement, STATE 927), (sym__simple_statements, STATE 927),
    (sym_import_statement, STATE 11814), (sym_future_import_statement, STATE 11814),
    (sym_import_from_statement, STATE 11814), (sym_print_statement, STATE 11814),
    (sym_assert_statement, STATE 11814), (sym_comptime_assert_statement, STATE 11814),
    (sym_expression_statement, STATE 11814), (sym_tuple_expression, STATE 12425),
    (sym_named_expression, STATE 7969), (sym__named_expression_lhs, STATE 12752),
    (sym_return_statement, STATE 11814), (sym_delete_statement, STATE 11814),
    (sym_raise_statement, STATE 11814), (sym_pass_statement, STATE 11814),
    (sym_break_statement, STATE 11814), (sym_continue_statement, STATE 11814),
    (sym_extension_definition, STATE 927), (sym_mlir_region, STATE 927),
    (sym_comptime_statement, STATE 927), (sym_if_statement, STATE 927),
    (sym_match_statement, STATE 927), (sym_for_statement, STATE 927),
    (sym_while_statement, STATE 927), (sym_try_statement, STATE 927),
    (sym_with_statement, STATE 927), (sym_function_definition, STATE 927),
    (sym_global_statement, STATE 11814), (sym_nonlocal_statement, STATE 11814),
    (sym_exec_statement, STATE 11814), (sym_type_alias_statement, STATE 11814),
    (sym_parameterized_alias_statement, STATE 11814), (sym_class_definition, STATE 927),
    (sym_trait_definition, STATE 927), (sym_decorated_definition, STATE 927),
    (sym_decorator, STATE 3670), (sym_block, STATE 6269), (sym_pattern, STATE 8086),
    (sym_tuple_pattern, STATE 8101), (sym_list_pattern, STATE 8101),
    (sym_list_splat_pattern, STATE 6819), (sym_as_pattern, STATE 7969),
    (sym_expression, STATE 9883), (sym_primary_expression, STATE 7326),
    (sym_comptime_expression, STATE 7017), (sym_transfer_expression, STATE 7017),
    (sym_not_operator, STATE 7969), (sym_boolean_operator, STATE 7969),
    (sym_binary_operator, STATE 7017), (sym_unary_operator, STATE 7017),
    (sym_comparison_operator, STATE 7969), (sym_lambda, STATE 7969),
    (sym_assignment, STATE 12425), (sym_augmented_assignment, STATE 12425),
    (sym_pattern_list, STATE 8578), (sym_yield, STATE 12425), (sym_attribute, STATE 6836),
    (sym_subscript, STATE 6838), (sym_call, STATE 6845), (sym_mlir_type, STATE 7017),
    (sym_list, STATE 7017), (sym_set, STATE 7017), (sym_tuple, STATE 7017),
    (sym_dictionary, STATE 7017), (sym_struct_literal, STATE 7017),
    (sym_list_comprehension, STATE 7017), (sym_dictionary_comprehension, STATE 7017),
    (sym_set_comprehension, STATE 7017), (sym_generator_expression, STATE 7017),
    (sym_parenthesized_expression, STATE 7017), (sym_conditional_expression, STATE 7969),
    (sym_concatenated_string, STATE 7017), (sym_string, STATE 6751), (sym_await, STATE 7017),
    (aux_sym_module_repeat1, STATE 927), (aux_sym_decorated_definition_repeat1, STATE 3670),
    (sym_identifier, ACTIONS 9), (anon_sym_import, ACTIONS 11), (anon_sym_from, ACTIONS 13),
    (anon_sym_LPAREN, ACTIONS 15), (anon_sym_STAR, ACTIONS 17), (anon_sym_print, ACTIONS 19),
    (anon_sym_comptime, ACTIONS 99), (anon_sym_assert, ACTIONS 23),
    (anon_sym___comptime_assert, ACTIONS 25), (anon_sym_return, ACTIONS 27),
    (anon_sym_del, ACTIONS 29), (anon_sym_raise, ACTIONS 31), (anon_sym_pass, ACTIONS 33),
    (anon_sym_break, ACTIONS 35), (anon_sym_continue, ACTIONS 37),
    (anon_sym___extension, ACTIONS 101), (anon_sym___mlir_region, ACTIONS 103),
    (anon_sym_if, ACTIONS 105), (anon_sym_match, ACTIONS 107), (anon_sym_async, ACTIONS 109),
    (anon_sym_for, ACTIONS 111), (anon_sym_while, ACTIONS 113), (anon_sym_try, ACTIONS 115),
    (anon_sym_with, ACTIONS 117), (anon_sym_def, ACTIONS 119), (anon_sym_fn, ACTIONS 119),
    (anon_sym_LBRACK, ACTIONS 59), (anon_sym_LBRACE, ACTIONS 61), (anon_sym_global, ACTIONS 63),
    (anon_sym_nonlocal, ACTIONS 65), (anon_sym_exec, ACTIONS 67), (anon_sym_type, ACTIONS 69),
    (anon_sym_class, ACTIONS 121), (anon_sym_struct, ACTIONS 121), (anon_sym_mut, ACTIONS 73),
    (anon_sym_out, ACTIONS 73), (anon_sym_trait, ACTIONS 123), (anon_sym_AT, ACTIONS 77),
    (anon_sym_DASH, ACTIONS 79), (anon_sym_PLUS, ACTIONS 79), (anon_sym_ref, ACTIONS 81),
    (anon_sym_var, ACTIONS 81), (anon_sym_not, ACTIONS 83), (anon_sym_TILDE, ACTIONS 79),
    (anon_sym_lambda, ACTIONS 85), (anon_sym_yield, ACTIONS 87), (sym_ellipsis, ACTIONS 89),
    (anon_sym___mlir_type, ACTIONS 91), (sym_integer, ACTIONS 93), (sym_float, ACTIONS 89),
    (anon_sym_await, ACTIONS 95), (sym_true, ACTIONS 93), (sym_false, ACTIONS 93),
    (sym_none, ACTIONS 93), (sym_comment, ACTIONS 3), (sym_line_continuation, ACTIONS 3),
    (sym__dedent, ACTIONS 125), (sym_string_start, ACTIONS 97)]"

definition parse_table_739 :: "(nat \<times> nat) list" where "parse_table_739 = [
    (sym__statement, STATE 927), (sym__simple_statements, STATE 927),
    (sym_import_statement, STATE 11814), (sym_future_import_statement, STATE 11814),
    (sym_import_from_statement, STATE 11814), (sym_print_statement, STATE 11814),
    (sym_assert_statement, STATE 11814), (sym_comptime_assert_statement, STATE 11814),
    (sym_expression_statement, STATE 11814), (sym_tuple_expression, STATE 12425),
    (sym_named_expression, STATE 7969), (sym__named_expression_lhs, STATE 12752),
    (sym_return_statement, STATE 11814), (sym_delete_statement, STATE 11814),
    (sym_raise_statement, STATE 11814), (sym_pass_statement, STATE 11814),
    (sym_break_statement, STATE 11814), (sym_continue_statement, STATE 11814),
    (sym_extension_definition, STATE 927), (sym_mlir_region, STATE 927),
    (sym_comptime_statement, STATE 927), (sym_if_statement, STATE 927),
    (sym_match_statement, STATE 927), (sym_for_statement, STATE 927),
    (sym_while_statement, STATE 927), (sym_try_statement, STATE 927),
    (sym_with_statement, STATE 927), (sym_function_definition, STATE 927),
    (sym_global_statement, STATE 11814), (sym_nonlocal_statement, STATE 11814),
    (sym_exec_statement, STATE 11814), (sym_type_alias_statement, STATE 11814),
    (sym_parameterized_alias_statement, STATE 11814), (sym_class_definition, STATE 927),
    (sym_trait_definition, STATE 927), (sym_decorated_definition, STATE 927),
    (sym_decorator, STATE 3670), (sym_block, STATE 6270), (sym_pattern, STATE 8086),
    (sym_tuple_pattern, STATE 8101), (sym_list_pattern, STATE 8101),
    (sym_list_splat_pattern, STATE 6819), (sym_as_pattern, STATE 7969),
    (sym_expression, STATE 9883), (sym_primary_expression, STATE 7326),
    (sym_comptime_expression, STATE 7017), (sym_transfer_expression, STATE 7017),
    (sym_not_operator, STATE 7969), (sym_boolean_operator, STATE 7969),
    (sym_binary_operator, STATE 7017), (sym_unary_operator, STATE 7017),
    (sym_comparison_operator, STATE 7969), (sym_lambda, STATE 7969),
    (sym_assignment, STATE 12425), (sym_augmented_assignment, STATE 12425),
    (sym_pattern_list, STATE 8578), (sym_yield, STATE 12425), (sym_attribute, STATE 6836),
    (sym_subscript, STATE 6838), (sym_call, STATE 6845), (sym_mlir_type, STATE 7017),
    (sym_list, STATE 7017), (sym_set, STATE 7017), (sym_tuple, STATE 7017),
    (sym_dictionary, STATE 7017), (sym_struct_literal, STATE 7017),
    (sym_list_comprehension, STATE 7017), (sym_dictionary_comprehension, STATE 7017),
    (sym_set_comprehension, STATE 7017), (sym_generator_expression, STATE 7017),
    (sym_parenthesized_expression, STATE 7017), (sym_conditional_expression, STATE 7969),
    (sym_concatenated_string, STATE 7017), (sym_string, STATE 6751), (sym_await, STATE 7017),
    (aux_sym_module_repeat1, STATE 927), (aux_sym_decorated_definition_repeat1, STATE 3670),
    (sym_identifier, ACTIONS 9), (anon_sym_import, ACTIONS 11), (anon_sym_from, ACTIONS 13),
    (anon_sym_LPAREN, ACTIONS 15), (anon_sym_STAR, ACTIONS 17), (anon_sym_print, ACTIONS 19),
    (anon_sym_comptime, ACTIONS 99), (anon_sym_assert, ACTIONS 23),
    (anon_sym___comptime_assert, ACTIONS 25), (anon_sym_return, ACTIONS 27),
    (anon_sym_del, ACTIONS 29), (anon_sym_raise, ACTIONS 31), (anon_sym_pass, ACTIONS 33),
    (anon_sym_break, ACTIONS 35), (anon_sym_continue, ACTIONS 37),
    (anon_sym___extension, ACTIONS 101), (anon_sym___mlir_region, ACTIONS 103),
    (anon_sym_if, ACTIONS 105), (anon_sym_match, ACTIONS 107), (anon_sym_async, ACTIONS 109),
    (anon_sym_for, ACTIONS 111), (anon_sym_while, ACTIONS 113), (anon_sym_try, ACTIONS 115),
    (anon_sym_with, ACTIONS 117), (anon_sym_def, ACTIONS 119), (anon_sym_fn, ACTIONS 119),
    (anon_sym_LBRACK, ACTIONS 59), (anon_sym_LBRACE, ACTIONS 61), (anon_sym_global, ACTIONS 63),
    (anon_sym_nonlocal, ACTIONS 65), (anon_sym_exec, ACTIONS 67), (anon_sym_type, ACTIONS 69),
    (anon_sym_class, ACTIONS 121), (anon_sym_struct, ACTIONS 121), (anon_sym_mut, ACTIONS 73),
    (anon_sym_out, ACTIONS 73), (anon_sym_trait, ACTIONS 123), (anon_sym_AT, ACTIONS 77),
    (anon_sym_DASH, ACTIONS 79), (anon_sym_PLUS, ACTIONS 79), (anon_sym_ref, ACTIONS 81),
    (anon_sym_var, ACTIONS 81), (anon_sym_not, ACTIONS 83), (anon_sym_TILDE, ACTIONS 79),
    (anon_sym_lambda, ACTIONS 85), (anon_sym_yield, ACTIONS 87), (sym_ellipsis, ACTIONS 89),
    (anon_sym___mlir_type, ACTIONS 91), (sym_integer, ACTIONS 93), (sym_float, ACTIONS 89),
    (anon_sym_await, ACTIONS 95), (sym_true, ACTIONS 93), (sym_false, ACTIONS 93),
    (sym_none, ACTIONS 93), (sym_comment, ACTIONS 3), (sym_line_continuation, ACTIONS 3),
    (sym__dedent, ACTIONS 125), (sym_string_start, ACTIONS 97)]"

definition parse_table_740 :: "(nat \<times> nat) list" where "parse_table_740 = [
    (sym__statement, STATE 927), (sym__simple_statements, STATE 927),
    (sym_import_statement, STATE 11814), (sym_future_import_statement, STATE 11814),
    (sym_import_from_statement, STATE 11814), (sym_print_statement, STATE 11814),
    (sym_assert_statement, STATE 11814), (sym_comptime_assert_statement, STATE 11814),
    (sym_expression_statement, STATE 11814), (sym_tuple_expression, STATE 12425),
    (sym_named_expression, STATE 7969), (sym__named_expression_lhs, STATE 12752),
    (sym_return_statement, STATE 11814), (sym_delete_statement, STATE 11814),
    (sym_raise_statement, STATE 11814), (sym_pass_statement, STATE 11814),
    (sym_break_statement, STATE 11814), (sym_continue_statement, STATE 11814),
    (sym_extension_definition, STATE 927), (sym_mlir_region, STATE 927),
    (sym_comptime_statement, STATE 927), (sym_if_statement, STATE 927),
    (sym_match_statement, STATE 927), (sym_for_statement, STATE 927),
    (sym_while_statement, STATE 927), (sym_try_statement, STATE 927),
    (sym_with_statement, STATE 927), (sym_function_definition, STATE 927),
    (sym_global_statement, STATE 11814), (sym_nonlocal_statement, STATE 11814),
    (sym_exec_statement, STATE 11814), (sym_type_alias_statement, STATE 11814),
    (sym_parameterized_alias_statement, STATE 11814), (sym_class_definition, STATE 927),
    (sym_trait_definition, STATE 927), (sym_decorated_definition, STATE 927),
    (sym_decorator, STATE 3670), (sym_block, STATE 6277), (sym_pattern, STATE 8086),
    (sym_tuple_pattern, STATE 8101), (sym_list_pattern, STATE 8101),
    (sym_list_splat_pattern, STATE 6819), (sym_as_pattern, STATE 7969),
    (sym_expression, STATE 9883), (sym_primary_expression, STATE 7326),
    (sym_comptime_expression, STATE 7017), (sym_transfer_expression, STATE 7017),
    (sym_not_operator, STATE 7969), (sym_boolean_operator, STATE 7969),
    (sym_binary_operator, STATE 7017), (sym_unary_operator, STATE 7017),
    (sym_comparison_operator, STATE 7969), (sym_lambda, STATE 7969),
    (sym_assignment, STATE 12425), (sym_augmented_assignment, STATE 12425),
    (sym_pattern_list, STATE 8578), (sym_yield, STATE 12425), (sym_attribute, STATE 6836),
    (sym_subscript, STATE 6838), (sym_call, STATE 6845), (sym_mlir_type, STATE 7017),
    (sym_list, STATE 7017), (sym_set, STATE 7017), (sym_tuple, STATE 7017),
    (sym_dictionary, STATE 7017), (sym_struct_literal, STATE 7017),
    (sym_list_comprehension, STATE 7017), (sym_dictionary_comprehension, STATE 7017),
    (sym_set_comprehension, STATE 7017), (sym_generator_expression, STATE 7017),
    (sym_parenthesized_expression, STATE 7017), (sym_conditional_expression, STATE 7969),
    (sym_concatenated_string, STATE 7017), (sym_string, STATE 6751), (sym_await, STATE 7017),
    (aux_sym_module_repeat1, STATE 927), (aux_sym_decorated_definition_repeat1, STATE 3670),
    (sym_identifier, ACTIONS 9), (anon_sym_import, ACTIONS 11), (anon_sym_from, ACTIONS 13),
    (anon_sym_LPAREN, ACTIONS 15), (anon_sym_STAR, ACTIONS 17), (anon_sym_print, ACTIONS 19),
    (anon_sym_comptime, ACTIONS 99), (anon_sym_assert, ACTIONS 23),
    (anon_sym___comptime_assert, ACTIONS 25), (anon_sym_return, ACTIONS 27),
    (anon_sym_del, ACTIONS 29), (anon_sym_raise, ACTIONS 31), (anon_sym_pass, ACTIONS 33),
    (anon_sym_break, ACTIONS 35), (anon_sym_continue, ACTIONS 37),
    (anon_sym___extension, ACTIONS 101), (anon_sym___mlir_region, ACTIONS 103),
    (anon_sym_if, ACTIONS 105), (anon_sym_match, ACTIONS 107), (anon_sym_async, ACTIONS 109),
    (anon_sym_for, ACTIONS 111), (anon_sym_while, ACTIONS 113), (anon_sym_try, ACTIONS 115),
    (anon_sym_with, ACTIONS 117), (anon_sym_def, ACTIONS 119), (anon_sym_fn, ACTIONS 119),
    (anon_sym_LBRACK, ACTIONS 59), (anon_sym_LBRACE, ACTIONS 61), (anon_sym_global, ACTIONS 63),
    (anon_sym_nonlocal, ACTIONS 65), (anon_sym_exec, ACTIONS 67), (anon_sym_type, ACTIONS 69),
    (anon_sym_class, ACTIONS 121), (anon_sym_struct, ACTIONS 121), (anon_sym_mut, ACTIONS 73),
    (anon_sym_out, ACTIONS 73), (anon_sym_trait, ACTIONS 123), (anon_sym_AT, ACTIONS 77),
    (anon_sym_DASH, ACTIONS 79), (anon_sym_PLUS, ACTIONS 79), (anon_sym_ref, ACTIONS 81),
    (anon_sym_var, ACTIONS 81), (anon_sym_not, ACTIONS 83), (anon_sym_TILDE, ACTIONS 79),
    (anon_sym_lambda, ACTIONS 85), (anon_sym_yield, ACTIONS 87), (sym_ellipsis, ACTIONS 89),
    (anon_sym___mlir_type, ACTIONS 91), (sym_integer, ACTIONS 93), (sym_float, ACTIONS 89),
    (anon_sym_await, ACTIONS 95), (sym_true, ACTIONS 93), (sym_false, ACTIONS 93),
    (sym_none, ACTIONS 93), (sym_comment, ACTIONS 3), (sym_line_continuation, ACTIONS 3),
    (sym__dedent, ACTIONS 125), (sym_string_start, ACTIONS 97)]"

definition parse_table_741 :: "(nat \<times> nat) list" where "parse_table_741 = [
    (sym__statement, STATE 927), (sym__simple_statements, STATE 927),
    (sym_import_statement, STATE 11814), (sym_future_import_statement, STATE 11814),
    (sym_import_from_statement, STATE 11814), (sym_print_statement, STATE 11814),
    (sym_assert_statement, STATE 11814), (sym_comptime_assert_statement, STATE 11814),
    (sym_expression_statement, STATE 11814), (sym_tuple_expression, STATE 12425),
    (sym_named_expression, STATE 7969), (sym__named_expression_lhs, STATE 12752),
    (sym_return_statement, STATE 11814), (sym_delete_statement, STATE 11814),
    (sym_raise_statement, STATE 11814), (sym_pass_statement, STATE 11814),
    (sym_break_statement, STATE 11814), (sym_continue_statement, STATE 11814),
    (sym_extension_definition, STATE 927), (sym_mlir_region, STATE 927),
    (sym_comptime_statement, STATE 927), (sym_if_statement, STATE 927),
    (sym_match_statement, STATE 927), (sym_for_statement, STATE 927),
    (sym_while_statement, STATE 927), (sym_try_statement, STATE 927),
    (sym_with_statement, STATE 927), (sym_function_definition, STATE 927),
    (sym_global_statement, STATE 11814), (sym_nonlocal_statement, STATE 11814),
    (sym_exec_statement, STATE 11814), (sym_type_alias_statement, STATE 11814),
    (sym_parameterized_alias_statement, STATE 11814), (sym_class_definition, STATE 927),
    (sym_trait_definition, STATE 927), (sym_decorated_definition, STATE 927),
    (sym_decorator, STATE 3670), (sym_block, STATE 6282), (sym_pattern, STATE 8086),
    (sym_tuple_pattern, STATE 8101), (sym_list_pattern, STATE 8101),
    (sym_list_splat_pattern, STATE 6819), (sym_as_pattern, STATE 7969),
    (sym_expression, STATE 9883), (sym_primary_expression, STATE 7326),
    (sym_comptime_expression, STATE 7017), (sym_transfer_expression, STATE 7017),
    (sym_not_operator, STATE 7969), (sym_boolean_operator, STATE 7969),
    (sym_binary_operator, STATE 7017), (sym_unary_operator, STATE 7017),
    (sym_comparison_operator, STATE 7969), (sym_lambda, STATE 7969),
    (sym_assignment, STATE 12425), (sym_augmented_assignment, STATE 12425),
    (sym_pattern_list, STATE 8578), (sym_yield, STATE 12425), (sym_attribute, STATE 6836),
    (sym_subscript, STATE 6838), (sym_call, STATE 6845), (sym_mlir_type, STATE 7017),
    (sym_list, STATE 7017), (sym_set, STATE 7017), (sym_tuple, STATE 7017),
    (sym_dictionary, STATE 7017), (sym_struct_literal, STATE 7017),
    (sym_list_comprehension, STATE 7017), (sym_dictionary_comprehension, STATE 7017),
    (sym_set_comprehension, STATE 7017), (sym_generator_expression, STATE 7017),
    (sym_parenthesized_expression, STATE 7017), (sym_conditional_expression, STATE 7969),
    (sym_concatenated_string, STATE 7017), (sym_string, STATE 6751), (sym_await, STATE 7017),
    (aux_sym_module_repeat1, STATE 927), (aux_sym_decorated_definition_repeat1, STATE 3670),
    (sym_identifier, ACTIONS 9), (anon_sym_import, ACTIONS 11), (anon_sym_from, ACTIONS 13),
    (anon_sym_LPAREN, ACTIONS 15), (anon_sym_STAR, ACTIONS 17), (anon_sym_print, ACTIONS 19),
    (anon_sym_comptime, ACTIONS 99), (anon_sym_assert, ACTIONS 23),
    (anon_sym___comptime_assert, ACTIONS 25), (anon_sym_return, ACTIONS 27),
    (anon_sym_del, ACTIONS 29), (anon_sym_raise, ACTIONS 31), (anon_sym_pass, ACTIONS 33),
    (anon_sym_break, ACTIONS 35), (anon_sym_continue, ACTIONS 37),
    (anon_sym___extension, ACTIONS 101), (anon_sym___mlir_region, ACTIONS 103),
    (anon_sym_if, ACTIONS 105), (anon_sym_match, ACTIONS 107), (anon_sym_async, ACTIONS 109),
    (anon_sym_for, ACTIONS 111), (anon_sym_while, ACTIONS 113), (anon_sym_try, ACTIONS 115),
    (anon_sym_with, ACTIONS 117), (anon_sym_def, ACTIONS 119), (anon_sym_fn, ACTIONS 119),
    (anon_sym_LBRACK, ACTIONS 59), (anon_sym_LBRACE, ACTIONS 61), (anon_sym_global, ACTIONS 63),
    (anon_sym_nonlocal, ACTIONS 65), (anon_sym_exec, ACTIONS 67), (anon_sym_type, ACTIONS 69),
    (anon_sym_class, ACTIONS 121), (anon_sym_struct, ACTIONS 121), (anon_sym_mut, ACTIONS 73),
    (anon_sym_out, ACTIONS 73), (anon_sym_trait, ACTIONS 123), (anon_sym_AT, ACTIONS 77),
    (anon_sym_DASH, ACTIONS 79), (anon_sym_PLUS, ACTIONS 79), (anon_sym_ref, ACTIONS 81),
    (anon_sym_var, ACTIONS 81), (anon_sym_not, ACTIONS 83), (anon_sym_TILDE, ACTIONS 79),
    (anon_sym_lambda, ACTIONS 85), (anon_sym_yield, ACTIONS 87), (sym_ellipsis, ACTIONS 89),
    (anon_sym___mlir_type, ACTIONS 91), (sym_integer, ACTIONS 93), (sym_float, ACTIONS 89),
    (anon_sym_await, ACTIONS 95), (sym_true, ACTIONS 93), (sym_false, ACTIONS 93),
    (sym_none, ACTIONS 93), (sym_comment, ACTIONS 3), (sym_line_continuation, ACTIONS 3),
    (sym__dedent, ACTIONS 125), (sym_string_start, ACTIONS 97)]"

definition parse_table_742 :: "(nat \<times> nat) list" where "parse_table_742 = [
    (sym__statement, STATE 927), (sym__simple_statements, STATE 927),
    (sym_import_statement, STATE 11814), (sym_future_import_statement, STATE 11814),
    (sym_import_from_statement, STATE 11814), (sym_print_statement, STATE 11814),
    (sym_assert_statement, STATE 11814), (sym_comptime_assert_statement, STATE 11814),
    (sym_expression_statement, STATE 11814), (sym_tuple_expression, STATE 12425),
    (sym_named_expression, STATE 7969), (sym__named_expression_lhs, STATE 12752),
    (sym_return_statement, STATE 11814), (sym_delete_statement, STATE 11814),
    (sym_raise_statement, STATE 11814), (sym_pass_statement, STATE 11814),
    (sym_break_statement, STATE 11814), (sym_continue_statement, STATE 11814),
    (sym_extension_definition, STATE 927), (sym_mlir_region, STATE 927),
    (sym_comptime_statement, STATE 927), (sym_if_statement, STATE 927),
    (sym_match_statement, STATE 927), (sym_for_statement, STATE 927),
    (sym_while_statement, STATE 927), (sym_try_statement, STATE 927),
    (sym_with_statement, STATE 927), (sym_function_definition, STATE 927),
    (sym_global_statement, STATE 11814), (sym_nonlocal_statement, STATE 11814),
    (sym_exec_statement, STATE 11814), (sym_type_alias_statement, STATE 11814),
    (sym_parameterized_alias_statement, STATE 11814), (sym_class_definition, STATE 927),
    (sym_trait_definition, STATE 927), (sym_decorated_definition, STATE 927),
    (sym_decorator, STATE 3670), (sym_block, STATE 6290), (sym_pattern, STATE 8086),
    (sym_tuple_pattern, STATE 8101), (sym_list_pattern, STATE 8101),
    (sym_list_splat_pattern, STATE 6819), (sym_as_pattern, STATE 7969),
    (sym_expression, STATE 9883), (sym_primary_expression, STATE 7326),
    (sym_comptime_expression, STATE 7017), (sym_transfer_expression, STATE 7017),
    (sym_not_operator, STATE 7969), (sym_boolean_operator, STATE 7969),
    (sym_binary_operator, STATE 7017), (sym_unary_operator, STATE 7017),
    (sym_comparison_operator, STATE 7969), (sym_lambda, STATE 7969),
    (sym_assignment, STATE 12425), (sym_augmented_assignment, STATE 12425),
    (sym_pattern_list, STATE 8578), (sym_yield, STATE 12425), (sym_attribute, STATE 6836),
    (sym_subscript, STATE 6838), (sym_call, STATE 6845), (sym_mlir_type, STATE 7017),
    (sym_list, STATE 7017), (sym_set, STATE 7017), (sym_tuple, STATE 7017),
    (sym_dictionary, STATE 7017), (sym_struct_literal, STATE 7017),
    (sym_list_comprehension, STATE 7017), (sym_dictionary_comprehension, STATE 7017),
    (sym_set_comprehension, STATE 7017), (sym_generator_expression, STATE 7017),
    (sym_parenthesized_expression, STATE 7017), (sym_conditional_expression, STATE 7969),
    (sym_concatenated_string, STATE 7017), (sym_string, STATE 6751), (sym_await, STATE 7017),
    (aux_sym_module_repeat1, STATE 927), (aux_sym_decorated_definition_repeat1, STATE 3670),
    (sym_identifier, ACTIONS 9), (anon_sym_import, ACTIONS 11), (anon_sym_from, ACTIONS 13),
    (anon_sym_LPAREN, ACTIONS 15), (anon_sym_STAR, ACTIONS 17), (anon_sym_print, ACTIONS 19),
    (anon_sym_comptime, ACTIONS 99), (anon_sym_assert, ACTIONS 23),
    (anon_sym___comptime_assert, ACTIONS 25), (anon_sym_return, ACTIONS 27),
    (anon_sym_del, ACTIONS 29), (anon_sym_raise, ACTIONS 31), (anon_sym_pass, ACTIONS 33),
    (anon_sym_break, ACTIONS 35), (anon_sym_continue, ACTIONS 37),
    (anon_sym___extension, ACTIONS 101), (anon_sym___mlir_region, ACTIONS 103),
    (anon_sym_if, ACTIONS 105), (anon_sym_match, ACTIONS 107), (anon_sym_async, ACTIONS 109),
    (anon_sym_for, ACTIONS 111), (anon_sym_while, ACTIONS 113), (anon_sym_try, ACTIONS 115),
    (anon_sym_with, ACTIONS 117), (anon_sym_def, ACTIONS 119), (anon_sym_fn, ACTIONS 119),
    (anon_sym_LBRACK, ACTIONS 59), (anon_sym_LBRACE, ACTIONS 61), (anon_sym_global, ACTIONS 63),
    (anon_sym_nonlocal, ACTIONS 65), (anon_sym_exec, ACTIONS 67), (anon_sym_type, ACTIONS 69),
    (anon_sym_class, ACTIONS 121), (anon_sym_struct, ACTIONS 121), (anon_sym_mut, ACTIONS 73),
    (anon_sym_out, ACTIONS 73), (anon_sym_trait, ACTIONS 123), (anon_sym_AT, ACTIONS 77),
    (anon_sym_DASH, ACTIONS 79), (anon_sym_PLUS, ACTIONS 79), (anon_sym_ref, ACTIONS 81),
    (anon_sym_var, ACTIONS 81), (anon_sym_not, ACTIONS 83), (anon_sym_TILDE, ACTIONS 79),
    (anon_sym_lambda, ACTIONS 85), (anon_sym_yield, ACTIONS 87), (sym_ellipsis, ACTIONS 89),
    (anon_sym___mlir_type, ACTIONS 91), (sym_integer, ACTIONS 93), (sym_float, ACTIONS 89),
    (anon_sym_await, ACTIONS 95), (sym_true, ACTIONS 93), (sym_false, ACTIONS 93),
    (sym_none, ACTIONS 93), (sym_comment, ACTIONS 3), (sym_line_continuation, ACTIONS 3),
    (sym__dedent, ACTIONS 125), (sym_string_start, ACTIONS 97)]"

definition parse_table_743 :: "(nat \<times> nat) list" where "parse_table_743 = [
    (sym__statement, STATE 927), (sym__simple_statements, STATE 927),
    (sym_import_statement, STATE 11814), (sym_future_import_statement, STATE 11814),
    (sym_import_from_statement, STATE 11814), (sym_print_statement, STATE 11814),
    (sym_assert_statement, STATE 11814), (sym_comptime_assert_statement, STATE 11814),
    (sym_expression_statement, STATE 11814), (sym_tuple_expression, STATE 12425),
    (sym_named_expression, STATE 7969), (sym__named_expression_lhs, STATE 12752),
    (sym_return_statement, STATE 11814), (sym_delete_statement, STATE 11814),
    (sym_raise_statement, STATE 11814), (sym_pass_statement, STATE 11814),
    (sym_break_statement, STATE 11814), (sym_continue_statement, STATE 11814),
    (sym_extension_definition, STATE 927), (sym_mlir_region, STATE 927),
    (sym_comptime_statement, STATE 927), (sym_if_statement, STATE 927),
    (sym_match_statement, STATE 927), (sym_for_statement, STATE 927),
    (sym_while_statement, STATE 927), (sym_try_statement, STATE 927),
    (sym_with_statement, STATE 927), (sym_function_definition, STATE 927),
    (sym_global_statement, STATE 11814), (sym_nonlocal_statement, STATE 11814),
    (sym_exec_statement, STATE 11814), (sym_type_alias_statement, STATE 11814),
    (sym_parameterized_alias_statement, STATE 11814), (sym_class_definition, STATE 927),
    (sym_trait_definition, STATE 927), (sym_decorated_definition, STATE 927),
    (sym_decorator, STATE 3670), (sym_block, STATE 6291), (sym_pattern, STATE 8086),
    (sym_tuple_pattern, STATE 8101), (sym_list_pattern, STATE 8101),
    (sym_list_splat_pattern, STATE 6819), (sym_as_pattern, STATE 7969),
    (sym_expression, STATE 9883), (sym_primary_expression, STATE 7326),
    (sym_comptime_expression, STATE 7017), (sym_transfer_expression, STATE 7017),
    (sym_not_operator, STATE 7969), (sym_boolean_operator, STATE 7969),
    (sym_binary_operator, STATE 7017), (sym_unary_operator, STATE 7017),
    (sym_comparison_operator, STATE 7969), (sym_lambda, STATE 7969),
    (sym_assignment, STATE 12425), (sym_augmented_assignment, STATE 12425),
    (sym_pattern_list, STATE 8578), (sym_yield, STATE 12425), (sym_attribute, STATE 6836),
    (sym_subscript, STATE 6838), (sym_call, STATE 6845), (sym_mlir_type, STATE 7017),
    (sym_list, STATE 7017), (sym_set, STATE 7017), (sym_tuple, STATE 7017),
    (sym_dictionary, STATE 7017), (sym_struct_literal, STATE 7017),
    (sym_list_comprehension, STATE 7017), (sym_dictionary_comprehension, STATE 7017),
    (sym_set_comprehension, STATE 7017), (sym_generator_expression, STATE 7017),
    (sym_parenthesized_expression, STATE 7017), (sym_conditional_expression, STATE 7969),
    (sym_concatenated_string, STATE 7017), (sym_string, STATE 6751), (sym_await, STATE 7017),
    (aux_sym_module_repeat1, STATE 927), (aux_sym_decorated_definition_repeat1, STATE 3670),
    (sym_identifier, ACTIONS 9), (anon_sym_import, ACTIONS 11), (anon_sym_from, ACTIONS 13),
    (anon_sym_LPAREN, ACTIONS 15), (anon_sym_STAR, ACTIONS 17), (anon_sym_print, ACTIONS 19),
    (anon_sym_comptime, ACTIONS 99), (anon_sym_assert, ACTIONS 23),
    (anon_sym___comptime_assert, ACTIONS 25), (anon_sym_return, ACTIONS 27),
    (anon_sym_del, ACTIONS 29), (anon_sym_raise, ACTIONS 31), (anon_sym_pass, ACTIONS 33),
    (anon_sym_break, ACTIONS 35), (anon_sym_continue, ACTIONS 37),
    (anon_sym___extension, ACTIONS 101), (anon_sym___mlir_region, ACTIONS 103),
    (anon_sym_if, ACTIONS 105), (anon_sym_match, ACTIONS 107), (anon_sym_async, ACTIONS 109),
    (anon_sym_for, ACTIONS 111), (anon_sym_while, ACTIONS 113), (anon_sym_try, ACTIONS 115),
    (anon_sym_with, ACTIONS 117), (anon_sym_def, ACTIONS 119), (anon_sym_fn, ACTIONS 119),
    (anon_sym_LBRACK, ACTIONS 59), (anon_sym_LBRACE, ACTIONS 61), (anon_sym_global, ACTIONS 63),
    (anon_sym_nonlocal, ACTIONS 65), (anon_sym_exec, ACTIONS 67), (anon_sym_type, ACTIONS 69),
    (anon_sym_class, ACTIONS 121), (anon_sym_struct, ACTIONS 121), (anon_sym_mut, ACTIONS 73),
    (anon_sym_out, ACTIONS 73), (anon_sym_trait, ACTIONS 123), (anon_sym_AT, ACTIONS 77),
    (anon_sym_DASH, ACTIONS 79), (anon_sym_PLUS, ACTIONS 79), (anon_sym_ref, ACTIONS 81),
    (anon_sym_var, ACTIONS 81), (anon_sym_not, ACTIONS 83), (anon_sym_TILDE, ACTIONS 79),
    (anon_sym_lambda, ACTIONS 85), (anon_sym_yield, ACTIONS 87), (sym_ellipsis, ACTIONS 89),
    (anon_sym___mlir_type, ACTIONS 91), (sym_integer, ACTIONS 93), (sym_float, ACTIONS 89),
    (anon_sym_await, ACTIONS 95), (sym_true, ACTIONS 93), (sym_false, ACTIONS 93),
    (sym_none, ACTIONS 93), (sym_comment, ACTIONS 3), (sym_line_continuation, ACTIONS 3),
    (sym__dedent, ACTIONS 125), (sym_string_start, ACTIONS 97)]"

definition parse_table_744 :: "(nat \<times> nat) list" where "parse_table_744 = [
    (sym__statement, STATE 927), (sym__simple_statements, STATE 927),
    (sym_import_statement, STATE 11814), (sym_future_import_statement, STATE 11814),
    (sym_import_from_statement, STATE 11814), (sym_print_statement, STATE 11814),
    (sym_assert_statement, STATE 11814), (sym_comptime_assert_statement, STATE 11814),
    (sym_expression_statement, STATE 11814), (sym_tuple_expression, STATE 12425),
    (sym_named_expression, STATE 7969), (sym__named_expression_lhs, STATE 12752),
    (sym_return_statement, STATE 11814), (sym_delete_statement, STATE 11814),
    (sym_raise_statement, STATE 11814), (sym_pass_statement, STATE 11814),
    (sym_break_statement, STATE 11814), (sym_continue_statement, STATE 11814),
    (sym_extension_definition, STATE 927), (sym_mlir_region, STATE 927),
    (sym_comptime_statement, STATE 927), (sym_if_statement, STATE 927),
    (sym_match_statement, STATE 927), (sym_for_statement, STATE 927),
    (sym_while_statement, STATE 927), (sym_try_statement, STATE 927),
    (sym_with_statement, STATE 927), (sym_function_definition, STATE 927),
    (sym_global_statement, STATE 11814), (sym_nonlocal_statement, STATE 11814),
    (sym_exec_statement, STATE 11814), (sym_type_alias_statement, STATE 11814),
    (sym_parameterized_alias_statement, STATE 11814), (sym_class_definition, STATE 927),
    (sym_trait_definition, STATE 927), (sym_decorated_definition, STATE 927),
    (sym_decorator, STATE 3670), (sym_block, STATE 6294), (sym_pattern, STATE 8086),
    (sym_tuple_pattern, STATE 8101), (sym_list_pattern, STATE 8101),
    (sym_list_splat_pattern, STATE 6819), (sym_as_pattern, STATE 7969),
    (sym_expression, STATE 9883), (sym_primary_expression, STATE 7326),
    (sym_comptime_expression, STATE 7017), (sym_transfer_expression, STATE 7017),
    (sym_not_operator, STATE 7969), (sym_boolean_operator, STATE 7969),
    (sym_binary_operator, STATE 7017), (sym_unary_operator, STATE 7017),
    (sym_comparison_operator, STATE 7969), (sym_lambda, STATE 7969),
    (sym_assignment, STATE 12425), (sym_augmented_assignment, STATE 12425),
    (sym_pattern_list, STATE 8578), (sym_yield, STATE 12425), (sym_attribute, STATE 6836),
    (sym_subscript, STATE 6838), (sym_call, STATE 6845), (sym_mlir_type, STATE 7017),
    (sym_list, STATE 7017), (sym_set, STATE 7017), (sym_tuple, STATE 7017),
    (sym_dictionary, STATE 7017), (sym_struct_literal, STATE 7017),
    (sym_list_comprehension, STATE 7017), (sym_dictionary_comprehension, STATE 7017),
    (sym_set_comprehension, STATE 7017), (sym_generator_expression, STATE 7017),
    (sym_parenthesized_expression, STATE 7017), (sym_conditional_expression, STATE 7969),
    (sym_concatenated_string, STATE 7017), (sym_string, STATE 6751), (sym_await, STATE 7017),
    (aux_sym_module_repeat1, STATE 927), (aux_sym_decorated_definition_repeat1, STATE 3670),
    (sym_identifier, ACTIONS 9), (anon_sym_import, ACTIONS 11), (anon_sym_from, ACTIONS 13),
    (anon_sym_LPAREN, ACTIONS 15), (anon_sym_STAR, ACTIONS 17), (anon_sym_print, ACTIONS 19),
    (anon_sym_comptime, ACTIONS 99), (anon_sym_assert, ACTIONS 23),
    (anon_sym___comptime_assert, ACTIONS 25), (anon_sym_return, ACTIONS 27),
    (anon_sym_del, ACTIONS 29), (anon_sym_raise, ACTIONS 31), (anon_sym_pass, ACTIONS 33),
    (anon_sym_break, ACTIONS 35), (anon_sym_continue, ACTIONS 37),
    (anon_sym___extension, ACTIONS 101), (anon_sym___mlir_region, ACTIONS 103),
    (anon_sym_if, ACTIONS 105), (anon_sym_match, ACTIONS 107), (anon_sym_async, ACTIONS 109),
    (anon_sym_for, ACTIONS 111), (anon_sym_while, ACTIONS 113), (anon_sym_try, ACTIONS 115),
    (anon_sym_with, ACTIONS 117), (anon_sym_def, ACTIONS 119), (anon_sym_fn, ACTIONS 119),
    (anon_sym_LBRACK, ACTIONS 59), (anon_sym_LBRACE, ACTIONS 61), (anon_sym_global, ACTIONS 63),
    (anon_sym_nonlocal, ACTIONS 65), (anon_sym_exec, ACTIONS 67), (anon_sym_type, ACTIONS 69),
    (anon_sym_class, ACTIONS 121), (anon_sym_struct, ACTIONS 121), (anon_sym_mut, ACTIONS 73),
    (anon_sym_out, ACTIONS 73), (anon_sym_trait, ACTIONS 123), (anon_sym_AT, ACTIONS 77),
    (anon_sym_DASH, ACTIONS 79), (anon_sym_PLUS, ACTIONS 79), (anon_sym_ref, ACTIONS 81),
    (anon_sym_var, ACTIONS 81), (anon_sym_not, ACTIONS 83), (anon_sym_TILDE, ACTIONS 79),
    (anon_sym_lambda, ACTIONS 85), (anon_sym_yield, ACTIONS 87), (sym_ellipsis, ACTIONS 89),
    (anon_sym___mlir_type, ACTIONS 91), (sym_integer, ACTIONS 93), (sym_float, ACTIONS 89),
    (anon_sym_await, ACTIONS 95), (sym_true, ACTIONS 93), (sym_false, ACTIONS 93),
    (sym_none, ACTIONS 93), (sym_comment, ACTIONS 3), (sym_line_continuation, ACTIONS 3),
    (sym__dedent, ACTIONS 125), (sym_string_start, ACTIONS 97)]"

definition parse_table_745 :: "(nat \<times> nat) list" where "parse_table_745 = [
    (sym__statement, STATE 927), (sym__simple_statements, STATE 927),
    (sym_import_statement, STATE 11814), (sym_future_import_statement, STATE 11814),
    (sym_import_from_statement, STATE 11814), (sym_print_statement, STATE 11814),
    (sym_assert_statement, STATE 11814), (sym_comptime_assert_statement, STATE 11814),
    (sym_expression_statement, STATE 11814), (sym_tuple_expression, STATE 12425),
    (sym_named_expression, STATE 7969), (sym__named_expression_lhs, STATE 12752),
    (sym_return_statement, STATE 11814), (sym_delete_statement, STATE 11814),
    (sym_raise_statement, STATE 11814), (sym_pass_statement, STATE 11814),
    (sym_break_statement, STATE 11814), (sym_continue_statement, STATE 11814),
    (sym_extension_definition, STATE 927), (sym_mlir_region, STATE 927),
    (sym_comptime_statement, STATE 927), (sym_if_statement, STATE 927),
    (sym_match_statement, STATE 927), (sym_for_statement, STATE 927),
    (sym_while_statement, STATE 927), (sym_try_statement, STATE 927),
    (sym_with_statement, STATE 927), (sym_function_definition, STATE 927),
    (sym_global_statement, STATE 11814), (sym_nonlocal_statement, STATE 11814),
    (sym_exec_statement, STATE 11814), (sym_type_alias_statement, STATE 11814),
    (sym_parameterized_alias_statement, STATE 11814), (sym_class_definition, STATE 927),
    (sym_trait_definition, STATE 927), (sym_decorated_definition, STATE 927),
    (sym_decorator, STATE 3670), (sym_block, STATE 6298), (sym_pattern, STATE 8086),
    (sym_tuple_pattern, STATE 8101), (sym_list_pattern, STATE 8101),
    (sym_list_splat_pattern, STATE 6819), (sym_as_pattern, STATE 7969),
    (sym_expression, STATE 9883), (sym_primary_expression, STATE 7326),
    (sym_comptime_expression, STATE 7017), (sym_transfer_expression, STATE 7017),
    (sym_not_operator, STATE 7969), (sym_boolean_operator, STATE 7969),
    (sym_binary_operator, STATE 7017), (sym_unary_operator, STATE 7017),
    (sym_comparison_operator, STATE 7969), (sym_lambda, STATE 7969),
    (sym_assignment, STATE 12425), (sym_augmented_assignment, STATE 12425),
    (sym_pattern_list, STATE 8578), (sym_yield, STATE 12425), (sym_attribute, STATE 6836),
    (sym_subscript, STATE 6838), (sym_call, STATE 6845), (sym_mlir_type, STATE 7017),
    (sym_list, STATE 7017), (sym_set, STATE 7017), (sym_tuple, STATE 7017),
    (sym_dictionary, STATE 7017), (sym_struct_literal, STATE 7017),
    (sym_list_comprehension, STATE 7017), (sym_dictionary_comprehension, STATE 7017),
    (sym_set_comprehension, STATE 7017), (sym_generator_expression, STATE 7017),
    (sym_parenthesized_expression, STATE 7017), (sym_conditional_expression, STATE 7969),
    (sym_concatenated_string, STATE 7017), (sym_string, STATE 6751), (sym_await, STATE 7017),
    (aux_sym_module_repeat1, STATE 927), (aux_sym_decorated_definition_repeat1, STATE 3670),
    (sym_identifier, ACTIONS 9), (anon_sym_import, ACTIONS 11), (anon_sym_from, ACTIONS 13),
    (anon_sym_LPAREN, ACTIONS 15), (anon_sym_STAR, ACTIONS 17), (anon_sym_print, ACTIONS 19),
    (anon_sym_comptime, ACTIONS 99), (anon_sym_assert, ACTIONS 23),
    (anon_sym___comptime_assert, ACTIONS 25), (anon_sym_return, ACTIONS 27),
    (anon_sym_del, ACTIONS 29), (anon_sym_raise, ACTIONS 31), (anon_sym_pass, ACTIONS 33),
    (anon_sym_break, ACTIONS 35), (anon_sym_continue, ACTIONS 37),
    (anon_sym___extension, ACTIONS 101), (anon_sym___mlir_region, ACTIONS 103),
    (anon_sym_if, ACTIONS 105), (anon_sym_match, ACTIONS 107), (anon_sym_async, ACTIONS 109),
    (anon_sym_for, ACTIONS 111), (anon_sym_while, ACTIONS 113), (anon_sym_try, ACTIONS 115),
    (anon_sym_with, ACTIONS 117), (anon_sym_def, ACTIONS 119), (anon_sym_fn, ACTIONS 119),
    (anon_sym_LBRACK, ACTIONS 59), (anon_sym_LBRACE, ACTIONS 61), (anon_sym_global, ACTIONS 63),
    (anon_sym_nonlocal, ACTIONS 65), (anon_sym_exec, ACTIONS 67), (anon_sym_type, ACTIONS 69),
    (anon_sym_class, ACTIONS 121), (anon_sym_struct, ACTIONS 121), (anon_sym_mut, ACTIONS 73),
    (anon_sym_out, ACTIONS 73), (anon_sym_trait, ACTIONS 123), (anon_sym_AT, ACTIONS 77),
    (anon_sym_DASH, ACTIONS 79), (anon_sym_PLUS, ACTIONS 79), (anon_sym_ref, ACTIONS 81),
    (anon_sym_var, ACTIONS 81), (anon_sym_not, ACTIONS 83), (anon_sym_TILDE, ACTIONS 79),
    (anon_sym_lambda, ACTIONS 85), (anon_sym_yield, ACTIONS 87), (sym_ellipsis, ACTIONS 89),
    (anon_sym___mlir_type, ACTIONS 91), (sym_integer, ACTIONS 93), (sym_float, ACTIONS 89),
    (anon_sym_await, ACTIONS 95), (sym_true, ACTIONS 93), (sym_false, ACTIONS 93),
    (sym_none, ACTIONS 93), (sym_comment, ACTIONS 3), (sym_line_continuation, ACTIONS 3),
    (sym__dedent, ACTIONS 125), (sym_string_start, ACTIONS 97)]"

definition parse_table_746 :: "(nat \<times> nat) list" where "parse_table_746 = [
    (sym__statement, STATE 927), (sym__simple_statements, STATE 927),
    (sym_import_statement, STATE 11814), (sym_future_import_statement, STATE 11814),
    (sym_import_from_statement, STATE 11814), (sym_print_statement, STATE 11814),
    (sym_assert_statement, STATE 11814), (sym_comptime_assert_statement, STATE 11814),
    (sym_expression_statement, STATE 11814), (sym_tuple_expression, STATE 12425),
    (sym_named_expression, STATE 7969), (sym__named_expression_lhs, STATE 12752),
    (sym_return_statement, STATE 11814), (sym_delete_statement, STATE 11814),
    (sym_raise_statement, STATE 11814), (sym_pass_statement, STATE 11814),
    (sym_break_statement, STATE 11814), (sym_continue_statement, STATE 11814),
    (sym_extension_definition, STATE 927), (sym_mlir_region, STATE 927),
    (sym_comptime_statement, STATE 927), (sym_if_statement, STATE 927),
    (sym_match_statement, STATE 927), (sym_for_statement, STATE 927),
    (sym_while_statement, STATE 927), (sym_try_statement, STATE 927),
    (sym_with_statement, STATE 927), (sym_function_definition, STATE 927),
    (sym_global_statement, STATE 11814), (sym_nonlocal_statement, STATE 11814),
    (sym_exec_statement, STATE 11814), (sym_type_alias_statement, STATE 11814),
    (sym_parameterized_alias_statement, STATE 11814), (sym_class_definition, STATE 927),
    (sym_trait_definition, STATE 927), (sym_decorated_definition, STATE 927),
    (sym_decorator, STATE 3670), (sym_block, STATE 6301), (sym_pattern, STATE 8086),
    (sym_tuple_pattern, STATE 8101), (sym_list_pattern, STATE 8101),
    (sym_list_splat_pattern, STATE 6819), (sym_as_pattern, STATE 7969),
    (sym_expression, STATE 9883), (sym_primary_expression, STATE 7326),
    (sym_comptime_expression, STATE 7017), (sym_transfer_expression, STATE 7017),
    (sym_not_operator, STATE 7969), (sym_boolean_operator, STATE 7969),
    (sym_binary_operator, STATE 7017), (sym_unary_operator, STATE 7017),
    (sym_comparison_operator, STATE 7969), (sym_lambda, STATE 7969),
    (sym_assignment, STATE 12425), (sym_augmented_assignment, STATE 12425),
    (sym_pattern_list, STATE 8578), (sym_yield, STATE 12425), (sym_attribute, STATE 6836),
    (sym_subscript, STATE 6838), (sym_call, STATE 6845), (sym_mlir_type, STATE 7017),
    (sym_list, STATE 7017), (sym_set, STATE 7017), (sym_tuple, STATE 7017),
    (sym_dictionary, STATE 7017), (sym_struct_literal, STATE 7017),
    (sym_list_comprehension, STATE 7017), (sym_dictionary_comprehension, STATE 7017),
    (sym_set_comprehension, STATE 7017), (sym_generator_expression, STATE 7017),
    (sym_parenthesized_expression, STATE 7017), (sym_conditional_expression, STATE 7969),
    (sym_concatenated_string, STATE 7017), (sym_string, STATE 6751), (sym_await, STATE 7017),
    (aux_sym_module_repeat1, STATE 927), (aux_sym_decorated_definition_repeat1, STATE 3670),
    (sym_identifier, ACTIONS 9), (anon_sym_import, ACTIONS 11), (anon_sym_from, ACTIONS 13),
    (anon_sym_LPAREN, ACTIONS 15), (anon_sym_STAR, ACTIONS 17), (anon_sym_print, ACTIONS 19),
    (anon_sym_comptime, ACTIONS 99), (anon_sym_assert, ACTIONS 23),
    (anon_sym___comptime_assert, ACTIONS 25), (anon_sym_return, ACTIONS 27),
    (anon_sym_del, ACTIONS 29), (anon_sym_raise, ACTIONS 31), (anon_sym_pass, ACTIONS 33),
    (anon_sym_break, ACTIONS 35), (anon_sym_continue, ACTIONS 37),
    (anon_sym___extension, ACTIONS 101), (anon_sym___mlir_region, ACTIONS 103),
    (anon_sym_if, ACTIONS 105), (anon_sym_match, ACTIONS 107), (anon_sym_async, ACTIONS 109),
    (anon_sym_for, ACTIONS 111), (anon_sym_while, ACTIONS 113), (anon_sym_try, ACTIONS 115),
    (anon_sym_with, ACTIONS 117), (anon_sym_def, ACTIONS 119), (anon_sym_fn, ACTIONS 119),
    (anon_sym_LBRACK, ACTIONS 59), (anon_sym_LBRACE, ACTIONS 61), (anon_sym_global, ACTIONS 63),
    (anon_sym_nonlocal, ACTIONS 65), (anon_sym_exec, ACTIONS 67), (anon_sym_type, ACTIONS 69),
    (anon_sym_class, ACTIONS 121), (anon_sym_struct, ACTIONS 121), (anon_sym_mut, ACTIONS 73),
    (anon_sym_out, ACTIONS 73), (anon_sym_trait, ACTIONS 123), (anon_sym_AT, ACTIONS 77),
    (anon_sym_DASH, ACTIONS 79), (anon_sym_PLUS, ACTIONS 79), (anon_sym_ref, ACTIONS 81),
    (anon_sym_var, ACTIONS 81), (anon_sym_not, ACTIONS 83), (anon_sym_TILDE, ACTIONS 79),
    (anon_sym_lambda, ACTIONS 85), (anon_sym_yield, ACTIONS 87), (sym_ellipsis, ACTIONS 89),
    (anon_sym___mlir_type, ACTIONS 91), (sym_integer, ACTIONS 93), (sym_float, ACTIONS 89),
    (anon_sym_await, ACTIONS 95), (sym_true, ACTIONS 93), (sym_false, ACTIONS 93),
    (sym_none, ACTIONS 93), (sym_comment, ACTIONS 3), (sym_line_continuation, ACTIONS 3),
    (sym__dedent, ACTIONS 125), (sym_string_start, ACTIONS 97)]"

definition parse_table_747 :: "(nat \<times> nat) list" where "parse_table_747 = [
    (sym__statement, STATE 927), (sym__simple_statements, STATE 927),
    (sym_import_statement, STATE 11814), (sym_future_import_statement, STATE 11814),
    (sym_import_from_statement, STATE 11814), (sym_print_statement, STATE 11814),
    (sym_assert_statement, STATE 11814), (sym_comptime_assert_statement, STATE 11814),
    (sym_expression_statement, STATE 11814), (sym_tuple_expression, STATE 12425),
    (sym_named_expression, STATE 7969), (sym__named_expression_lhs, STATE 12752),
    (sym_return_statement, STATE 11814), (sym_delete_statement, STATE 11814),
    (sym_raise_statement, STATE 11814), (sym_pass_statement, STATE 11814),
    (sym_break_statement, STATE 11814), (sym_continue_statement, STATE 11814),
    (sym_extension_definition, STATE 927), (sym_mlir_region, STATE 927),
    (sym_comptime_statement, STATE 927), (sym_if_statement, STATE 927),
    (sym_match_statement, STATE 927), (sym_for_statement, STATE 927),
    (sym_while_statement, STATE 927), (sym_try_statement, STATE 927),
    (sym_with_statement, STATE 927), (sym_function_definition, STATE 927),
    (sym_global_statement, STATE 11814), (sym_nonlocal_statement, STATE 11814),
    (sym_exec_statement, STATE 11814), (sym_type_alias_statement, STATE 11814),
    (sym_parameterized_alias_statement, STATE 11814), (sym_class_definition, STATE 927),
    (sym_trait_definition, STATE 927), (sym_decorated_definition, STATE 927),
    (sym_decorator, STATE 3670), (sym_block, STATE 6305), (sym_pattern, STATE 8086),
    (sym_tuple_pattern, STATE 8101), (sym_list_pattern, STATE 8101),
    (sym_list_splat_pattern, STATE 6819), (sym_as_pattern, STATE 7969),
    (sym_expression, STATE 9883), (sym_primary_expression, STATE 7326),
    (sym_comptime_expression, STATE 7017), (sym_transfer_expression, STATE 7017),
    (sym_not_operator, STATE 7969), (sym_boolean_operator, STATE 7969),
    (sym_binary_operator, STATE 7017), (sym_unary_operator, STATE 7017),
    (sym_comparison_operator, STATE 7969), (sym_lambda, STATE 7969),
    (sym_assignment, STATE 12425), (sym_augmented_assignment, STATE 12425),
    (sym_pattern_list, STATE 8578), (sym_yield, STATE 12425), (sym_attribute, STATE 6836),
    (sym_subscript, STATE 6838), (sym_call, STATE 6845), (sym_mlir_type, STATE 7017),
    (sym_list, STATE 7017), (sym_set, STATE 7017), (sym_tuple, STATE 7017),
    (sym_dictionary, STATE 7017), (sym_struct_literal, STATE 7017),
    (sym_list_comprehension, STATE 7017), (sym_dictionary_comprehension, STATE 7017),
    (sym_set_comprehension, STATE 7017), (sym_generator_expression, STATE 7017),
    (sym_parenthesized_expression, STATE 7017), (sym_conditional_expression, STATE 7969),
    (sym_concatenated_string, STATE 7017), (sym_string, STATE 6751), (sym_await, STATE 7017),
    (aux_sym_module_repeat1, STATE 927), (aux_sym_decorated_definition_repeat1, STATE 3670),
    (sym_identifier, ACTIONS 9), (anon_sym_import, ACTIONS 11), (anon_sym_from, ACTIONS 13),
    (anon_sym_LPAREN, ACTIONS 15), (anon_sym_STAR, ACTIONS 17), (anon_sym_print, ACTIONS 19),
    (anon_sym_comptime, ACTIONS 99), (anon_sym_assert, ACTIONS 23),
    (anon_sym___comptime_assert, ACTIONS 25), (anon_sym_return, ACTIONS 27),
    (anon_sym_del, ACTIONS 29), (anon_sym_raise, ACTIONS 31), (anon_sym_pass, ACTIONS 33),
    (anon_sym_break, ACTIONS 35), (anon_sym_continue, ACTIONS 37),
    (anon_sym___extension, ACTIONS 101), (anon_sym___mlir_region, ACTIONS 103),
    (anon_sym_if, ACTIONS 105), (anon_sym_match, ACTIONS 107), (anon_sym_async, ACTIONS 109),
    (anon_sym_for, ACTIONS 111), (anon_sym_while, ACTIONS 113), (anon_sym_try, ACTIONS 115),
    (anon_sym_with, ACTIONS 117), (anon_sym_def, ACTIONS 119), (anon_sym_fn, ACTIONS 119),
    (anon_sym_LBRACK, ACTIONS 59), (anon_sym_LBRACE, ACTIONS 61), (anon_sym_global, ACTIONS 63),
    (anon_sym_nonlocal, ACTIONS 65), (anon_sym_exec, ACTIONS 67), (anon_sym_type, ACTIONS 69),
    (anon_sym_class, ACTIONS 121), (anon_sym_struct, ACTIONS 121), (anon_sym_mut, ACTIONS 73),
    (anon_sym_out, ACTIONS 73), (anon_sym_trait, ACTIONS 123), (anon_sym_AT, ACTIONS 77),
    (anon_sym_DASH, ACTIONS 79), (anon_sym_PLUS, ACTIONS 79), (anon_sym_ref, ACTIONS 81),
    (anon_sym_var, ACTIONS 81), (anon_sym_not, ACTIONS 83), (anon_sym_TILDE, ACTIONS 79),
    (anon_sym_lambda, ACTIONS 85), (anon_sym_yield, ACTIONS 87), (sym_ellipsis, ACTIONS 89),
    (anon_sym___mlir_type, ACTIONS 91), (sym_integer, ACTIONS 93), (sym_float, ACTIONS 89),
    (anon_sym_await, ACTIONS 95), (sym_true, ACTIONS 93), (sym_false, ACTIONS 93),
    (sym_none, ACTIONS 93), (sym_comment, ACTIONS 3), (sym_line_continuation, ACTIONS 3),
    (sym__dedent, ACTIONS 125), (sym_string_start, ACTIONS 97)]"

definition parse_table_748 :: "(nat \<times> nat) list" where "parse_table_748 = [
    (sym__statement, STATE 927), (sym__simple_statements, STATE 927),
    (sym_import_statement, STATE 11814), (sym_future_import_statement, STATE 11814),
    (sym_import_from_statement, STATE 11814), (sym_print_statement, STATE 11814),
    (sym_assert_statement, STATE 11814), (sym_comptime_assert_statement, STATE 11814),
    (sym_expression_statement, STATE 11814), (sym_tuple_expression, STATE 12425),
    (sym_named_expression, STATE 7969), (sym__named_expression_lhs, STATE 12752),
    (sym_return_statement, STATE 11814), (sym_delete_statement, STATE 11814),
    (sym_raise_statement, STATE 11814), (sym_pass_statement, STATE 11814),
    (sym_break_statement, STATE 11814), (sym_continue_statement, STATE 11814),
    (sym_extension_definition, STATE 927), (sym_mlir_region, STATE 927),
    (sym_comptime_statement, STATE 927), (sym_if_statement, STATE 927),
    (sym_match_statement, STATE 927), (sym_for_statement, STATE 927),
    (sym_while_statement, STATE 927), (sym_try_statement, STATE 927),
    (sym_with_statement, STATE 927), (sym_function_definition, STATE 927),
    (sym_global_statement, STATE 11814), (sym_nonlocal_statement, STATE 11814),
    (sym_exec_statement, STATE 11814), (sym_type_alias_statement, STATE 11814),
    (sym_parameterized_alias_statement, STATE 11814), (sym_class_definition, STATE 927),
    (sym_trait_definition, STATE 927), (sym_decorated_definition, STATE 927),
    (sym_decorator, STATE 3670), (sym_block, STATE 6309), (sym_pattern, STATE 8086),
    (sym_tuple_pattern, STATE 8101), (sym_list_pattern, STATE 8101),
    (sym_list_splat_pattern, STATE 6819), (sym_as_pattern, STATE 7969),
    (sym_expression, STATE 9883), (sym_primary_expression, STATE 7326),
    (sym_comptime_expression, STATE 7017), (sym_transfer_expression, STATE 7017),
    (sym_not_operator, STATE 7969), (sym_boolean_operator, STATE 7969),
    (sym_binary_operator, STATE 7017), (sym_unary_operator, STATE 7017),
    (sym_comparison_operator, STATE 7969), (sym_lambda, STATE 7969),
    (sym_assignment, STATE 12425), (sym_augmented_assignment, STATE 12425),
    (sym_pattern_list, STATE 8578), (sym_yield, STATE 12425), (sym_attribute, STATE 6836),
    (sym_subscript, STATE 6838), (sym_call, STATE 6845), (sym_mlir_type, STATE 7017),
    (sym_list, STATE 7017), (sym_set, STATE 7017), (sym_tuple, STATE 7017),
    (sym_dictionary, STATE 7017), (sym_struct_literal, STATE 7017),
    (sym_list_comprehension, STATE 7017), (sym_dictionary_comprehension, STATE 7017),
    (sym_set_comprehension, STATE 7017), (sym_generator_expression, STATE 7017),
    (sym_parenthesized_expression, STATE 7017), (sym_conditional_expression, STATE 7969),
    (sym_concatenated_string, STATE 7017), (sym_string, STATE 6751), (sym_await, STATE 7017),
    (aux_sym_module_repeat1, STATE 927), (aux_sym_decorated_definition_repeat1, STATE 3670),
    (sym_identifier, ACTIONS 9), (anon_sym_import, ACTIONS 11), (anon_sym_from, ACTIONS 13),
    (anon_sym_LPAREN, ACTIONS 15), (anon_sym_STAR, ACTIONS 17), (anon_sym_print, ACTIONS 19),
    (anon_sym_comptime, ACTIONS 99), (anon_sym_assert, ACTIONS 23),
    (anon_sym___comptime_assert, ACTIONS 25), (anon_sym_return, ACTIONS 27),
    (anon_sym_del, ACTIONS 29), (anon_sym_raise, ACTIONS 31), (anon_sym_pass, ACTIONS 33),
    (anon_sym_break, ACTIONS 35), (anon_sym_continue, ACTIONS 37),
    (anon_sym___extension, ACTIONS 101), (anon_sym___mlir_region, ACTIONS 103),
    (anon_sym_if, ACTIONS 105), (anon_sym_match, ACTIONS 107), (anon_sym_async, ACTIONS 109),
    (anon_sym_for, ACTIONS 111), (anon_sym_while, ACTIONS 113), (anon_sym_try, ACTIONS 115),
    (anon_sym_with, ACTIONS 117), (anon_sym_def, ACTIONS 119), (anon_sym_fn, ACTIONS 119),
    (anon_sym_LBRACK, ACTIONS 59), (anon_sym_LBRACE, ACTIONS 61), (anon_sym_global, ACTIONS 63),
    (anon_sym_nonlocal, ACTIONS 65), (anon_sym_exec, ACTIONS 67), (anon_sym_type, ACTIONS 69),
    (anon_sym_class, ACTIONS 121), (anon_sym_struct, ACTIONS 121), (anon_sym_mut, ACTIONS 73),
    (anon_sym_out, ACTIONS 73), (anon_sym_trait, ACTIONS 123), (anon_sym_AT, ACTIONS 77),
    (anon_sym_DASH, ACTIONS 79), (anon_sym_PLUS, ACTIONS 79), (anon_sym_ref, ACTIONS 81),
    (anon_sym_var, ACTIONS 81), (anon_sym_not, ACTIONS 83), (anon_sym_TILDE, ACTIONS 79),
    (anon_sym_lambda, ACTIONS 85), (anon_sym_yield, ACTIONS 87), (sym_ellipsis, ACTIONS 89),
    (anon_sym___mlir_type, ACTIONS 91), (sym_integer, ACTIONS 93), (sym_float, ACTIONS 89),
    (anon_sym_await, ACTIONS 95), (sym_true, ACTIONS 93), (sym_false, ACTIONS 93),
    (sym_none, ACTIONS 93), (sym_comment, ACTIONS 3), (sym_line_continuation, ACTIONS 3),
    (sym__dedent, ACTIONS 125), (sym_string_start, ACTIONS 97)]"

definition parse_table_749 :: "(nat \<times> nat) list" where "parse_table_749 = [
    (sym__statement, STATE 927), (sym__simple_statements, STATE 927),
    (sym_import_statement, STATE 11814), (sym_future_import_statement, STATE 11814),
    (sym_import_from_statement, STATE 11814), (sym_print_statement, STATE 11814),
    (sym_assert_statement, STATE 11814), (sym_comptime_assert_statement, STATE 11814),
    (sym_expression_statement, STATE 11814), (sym_tuple_expression, STATE 12425),
    (sym_named_expression, STATE 7969), (sym__named_expression_lhs, STATE 12752),
    (sym_return_statement, STATE 11814), (sym_delete_statement, STATE 11814),
    (sym_raise_statement, STATE 11814), (sym_pass_statement, STATE 11814),
    (sym_break_statement, STATE 11814), (sym_continue_statement, STATE 11814),
    (sym_extension_definition, STATE 927), (sym_mlir_region, STATE 927),
    (sym_comptime_statement, STATE 927), (sym_if_statement, STATE 927),
    (sym_match_statement, STATE 927), (sym_for_statement, STATE 927),
    (sym_while_statement, STATE 927), (sym_try_statement, STATE 927),
    (sym_with_statement, STATE 927), (sym_function_definition, STATE 927),
    (sym_global_statement, STATE 11814), (sym_nonlocal_statement, STATE 11814),
    (sym_exec_statement, STATE 11814), (sym_type_alias_statement, STATE 11814),
    (sym_parameterized_alias_statement, STATE 11814), (sym_class_definition, STATE 927),
    (sym_trait_definition, STATE 927), (sym_decorated_definition, STATE 927),
    (sym_decorator, STATE 3670), (sym_block, STATE 6312), (sym_pattern, STATE 8086),
    (sym_tuple_pattern, STATE 8101), (sym_list_pattern, STATE 8101),
    (sym_list_splat_pattern, STATE 6819), (sym_as_pattern, STATE 7969),
    (sym_expression, STATE 9883), (sym_primary_expression, STATE 7326),
    (sym_comptime_expression, STATE 7017), (sym_transfer_expression, STATE 7017),
    (sym_not_operator, STATE 7969), (sym_boolean_operator, STATE 7969),
    (sym_binary_operator, STATE 7017), (sym_unary_operator, STATE 7017),
    (sym_comparison_operator, STATE 7969), (sym_lambda, STATE 7969),
    (sym_assignment, STATE 12425), (sym_augmented_assignment, STATE 12425),
    (sym_pattern_list, STATE 8578), (sym_yield, STATE 12425), (sym_attribute, STATE 6836),
    (sym_subscript, STATE 6838), (sym_call, STATE 6845), (sym_mlir_type, STATE 7017),
    (sym_list, STATE 7017), (sym_set, STATE 7017), (sym_tuple, STATE 7017),
    (sym_dictionary, STATE 7017), (sym_struct_literal, STATE 7017),
    (sym_list_comprehension, STATE 7017), (sym_dictionary_comprehension, STATE 7017),
    (sym_set_comprehension, STATE 7017), (sym_generator_expression, STATE 7017),
    (sym_parenthesized_expression, STATE 7017), (sym_conditional_expression, STATE 7969),
    (sym_concatenated_string, STATE 7017), (sym_string, STATE 6751), (sym_await, STATE 7017),
    (aux_sym_module_repeat1, STATE 927), (aux_sym_decorated_definition_repeat1, STATE 3670),
    (sym_identifier, ACTIONS 9), (anon_sym_import, ACTIONS 11), (anon_sym_from, ACTIONS 13),
    (anon_sym_LPAREN, ACTIONS 15), (anon_sym_STAR, ACTIONS 17), (anon_sym_print, ACTIONS 19),
    (anon_sym_comptime, ACTIONS 99), (anon_sym_assert, ACTIONS 23),
    (anon_sym___comptime_assert, ACTIONS 25), (anon_sym_return, ACTIONS 27),
    (anon_sym_del, ACTIONS 29), (anon_sym_raise, ACTIONS 31), (anon_sym_pass, ACTIONS 33),
    (anon_sym_break, ACTIONS 35), (anon_sym_continue, ACTIONS 37),
    (anon_sym___extension, ACTIONS 101), (anon_sym___mlir_region, ACTIONS 103),
    (anon_sym_if, ACTIONS 105), (anon_sym_match, ACTIONS 107), (anon_sym_async, ACTIONS 109),
    (anon_sym_for, ACTIONS 111), (anon_sym_while, ACTIONS 113), (anon_sym_try, ACTIONS 115),
    (anon_sym_with, ACTIONS 117), (anon_sym_def, ACTIONS 119), (anon_sym_fn, ACTIONS 119),
    (anon_sym_LBRACK, ACTIONS 59), (anon_sym_LBRACE, ACTIONS 61), (anon_sym_global, ACTIONS 63),
    (anon_sym_nonlocal, ACTIONS 65), (anon_sym_exec, ACTIONS 67), (anon_sym_type, ACTIONS 69),
    (anon_sym_class, ACTIONS 121), (anon_sym_struct, ACTIONS 121), (anon_sym_mut, ACTIONS 73),
    (anon_sym_out, ACTIONS 73), (anon_sym_trait, ACTIONS 123), (anon_sym_AT, ACTIONS 77),
    (anon_sym_DASH, ACTIONS 79), (anon_sym_PLUS, ACTIONS 79), (anon_sym_ref, ACTIONS 81),
    (anon_sym_var, ACTIONS 81), (anon_sym_not, ACTIONS 83), (anon_sym_TILDE, ACTIONS 79),
    (anon_sym_lambda, ACTIONS 85), (anon_sym_yield, ACTIONS 87), (sym_ellipsis, ACTIONS 89),
    (anon_sym___mlir_type, ACTIONS 91), (sym_integer, ACTIONS 93), (sym_float, ACTIONS 89),
    (anon_sym_await, ACTIONS 95), (sym_true, ACTIONS 93), (sym_false, ACTIONS 93),
    (sym_none, ACTIONS 93), (sym_comment, ACTIONS 3), (sym_line_continuation, ACTIONS 3),
    (sym__dedent, ACTIONS 125), (sym_string_start, ACTIONS 97)]"

end
