(* ===== verification/Mojo_Parse_Rows_6.thy ===== *)
theory Mojo_Parse_Rows_6
  imports Mojo_Grammar Mojo_Table_Macros
begin

text \<open>
  The rows of \<open>ts_parse_table\<close> (\<^verbatim>\<open>grammars/tree-sitter-mojo/src/parser.c\<close>) for the parse states from
  900 to 1049: for a symbol, the group of actions in \<open>ts_parse_actions\<close> for a token and the next state
  for a nonterminal. Definitions only, one for each state.
\<close>

section \<open>Rows\<close>

definition parse_table_900 :: "(nat \<times> nat) list" where "parse_table_900 = [
    (sym__statement, STATE 927), (sym__simple_statements, STATE 927),
    (sym_import_statement, STATE 11814), (sym_future_import_statement, STATE 11814),
    (sym_import_from_statement, STATE 11814), (sym_print_statement, STATE 11814),
    (sym_assert_statement, STATE 11814), (sym_comptime_assert_statement, STATE 11814),
    (sym_expression_statement, STATE 11814), (sym_tuple_expression, STATE 12425),
    (sym_named_expression, STATE 7969), (sym__named_expression_lhs, STATE 12752),
    (sym_return_statement, STATE 11814), (sym_delete_statement, STATE 11814),
    (sym_raise_statement, STATE 11814), (sym_pass_statement, STATE 11814),
    (sym_break_statement, STATE 11814), (sym_continue_statement, STATE 11814),
    (sym_extension_definition, STATE 927), (sym_mlir_region, STATE 927),
    (sym_comptime_statement, STATE 927), (sym_if_statement, STATE 927),
    (sym_match_statement, STATE 927), (sym_for_statement, STATE 927),
    (sym_while_statement, STATE 927), (sym_try_statement, STATE 927),
    (sym_with_statement, STATE 927), (sym_function_definition, STATE 927),
    (sym_global_statement, STATE 11814), (sym_nonlocal_statement, STATE 11814),
    (sym_exec_statement, STATE 11814), (sym_type_alias_statement, STATE 11814),
    (sym_parameterized_alias_statement, STATE 11814), (sym_class_definition, STATE 927),
    (sym_trait_definition, STATE 927), (sym_decorated_definition, STATE 927),
    (sym_decorator, STATE 3670), (sym_block, STATE 4413), (sym_pattern, STATE 8086),
    (sym_tuple_pattern, STATE 8101), (sym_list_pattern, STATE 8101),
    (sym_list_splat_pattern, STATE 6819), (sym_as_pattern, STATE 7969),
    (sym_expression, STATE 9883), (sym_primary_expression, STATE 7326),
    (sym_comptime_expression, STATE 7017), (sym_transfer_expression, STATE 7017),
    (sym_not_operator, STATE 7969), (sym_boolean_operator, STATE 7969),
    (sym_binary_operator, STATE 7017), (sym_unary_operator, STATE 7017),
    (sym_comparison_operator, STATE 7969), (sym_lambda, STATE 7969),
    (sym_assignment, STATE 12425), (sym_augmented_assignment, STATE 12425),
    (sym_pattern_list, STATE 8578), (sym_yield, STATE 12425), (sym_attribute, STATE 6836),
    (sym_subscript, STATE 6838), (sym_call, STATE 6845), (sym_mlir_type, STATE 7017),
    (sym_list, STATE 7017), (sym_set, STATE 7017), (sym_tuple, STATE 7017),
    (sym_dictionary, STATE 7017), (sym_struct_literal, STATE 7017),
    (sym_list_comprehension, STATE 7017), (sym_dictionary_comprehension, STATE 7017),
    (sym_set_comprehension, STATE 7017), (sym_generator_expression, STATE 7017),
    (sym_parenthesized_expression, STATE 7017), (sym_conditional_expression, STATE 7969),
    (sym_concatenated_string, STATE 7017), (sym_string, STATE 6751), (sym_await, STATE 7017),
    (aux_sym_module_repeat1, STATE 927), (aux_sym_decorated_definition_repeat1, STATE 3670),
    (sym_identifier, ACTIONS 9), (anon_sym_import, ACTIONS 11), (anon_sym_from, ACTIONS 13),
    (anon_sym_LPAREN, ACTIONS 15), (anon_sym_STAR, ACTIONS 17), (anon_sym_print, ACTIONS 19),
    (anon_sym_comptime, ACTIONS 99), (anon_sym_assert, ACTIONS 23),
    (anon_sym___comptime_assert, ACTIONS 25), (anon_sym_return, ACTIONS 27),
    (anon_sym_del, ACTIONS 29), (anon_sym_raise, ACTIONS 31), (anon_sym_pass, ACTIONS 33),
    (anon_sym_break, ACTIONS 35), (anon_sym_continue, ACTIONS 37),
    (anon_sym___extension, ACTIONS 101), (anon_sym___mlir_region, ACTIONS 103),
    (anon_sym_if, ACTIONS 105), (anon_sym_match, ACTIONS 107), (anon_sym_async, ACTIONS 109),
    (anon_sym_for, ACTIONS 111), (anon_sym_while, ACTIONS 113), (anon_sym_try, ACTIONS 115),
    (anon_sym_with, ACTIONS 117), (anon_sym_def, ACTIONS 119), (anon_sym_fn, ACTIONS 119),
    (anon_sym_LBRACK, ACTIONS 59), (anon_sym_LBRACE, ACTIONS 61), (anon_sym_global, ACTIONS 63),
    (anon_sym_nonlocal, ACTIONS 65), (anon_sym_exec, ACTIONS 67), (anon_sym_type, ACTIONS 69),
    (anon_sym_class, ACTIONS 121), (anon_sym_struct, ACTIONS 121), (anon_sym_mut, ACTIONS 73),
    (anon_sym_out, ACTIONS 73), (anon_sym_trait, ACTIONS 123), (anon_sym_AT, ACTIONS 77),
    (anon_sym_DASH, ACTIONS 79), (anon_sym_PLUS, ACTIONS 79), (anon_sym_ref, ACTIONS 81),
    (anon_sym_var, ACTIONS 81), (anon_sym_not, ACTIONS 83), (anon_sym_TILDE, ACTIONS 79),
    (anon_sym_lambda, ACTIONS 85), (anon_sym_yield, ACTIONS 87), (sym_ellipsis, ACTIONS 89),
    (anon_sym___mlir_type, ACTIONS 91), (sym_integer, ACTIONS 93), (sym_float, ACTIONS 89),
    (anon_sym_await, ACTIONS 95), (sym_true, ACTIONS 93), (sym_false, ACTIONS 93),
    (sym_none, ACTIONS 93), (sym_comment, ACTIONS 3), (sym_line_continuation, ACTIONS 3),
    (sym__dedent, ACTIONS 125), (sym_string_start, ACTIONS 97)]"

definition parse_table_901 :: "(nat \<times> nat) list" where "parse_table_901 = [
    (sym__statement, STATE 927), (sym__simple_statements, STATE 927),
    (sym_import_statement, STATE 11814), (sym_future_import_statement, STATE 11814),
    (sym_import_from_statement, STATE 11814), (sym_print_statement, STATE 11814),
    (sym_assert_statement, STATE 11814), (sym_comptime_assert_statement, STATE 11814),
    (sym_expression_statement, STATE 11814), (sym_tuple_expression, STATE 12425),
    (sym_named_expression, STATE 7969), (sym__named_expression_lhs, STATE 12752),
    (sym_return_statement, STATE 11814), (sym_delete_statement, STATE 11814),
    (sym_raise_statement, STATE 11814), (sym_pass_statement, STATE 11814),
    (sym_break_statement, STATE 11814), (sym_continue_statement, STATE 11814),
    (sym_extension_definition, STATE 927), (sym_mlir_region, STATE 927),
    (sym_comptime_statement, STATE 927), (sym_if_statement, STATE 927),
    (sym_match_statement, STATE 927), (sym_for_statement, STATE 927),
    (sym_while_statement, STATE 927), (sym_try_statement, STATE 927),
    (sym_with_statement, STATE 927), (sym_function_definition, STATE 927),
    (sym_global_statement, STATE 11814), (sym_nonlocal_statement, STATE 11814),
    (sym_exec_statement, STATE 11814), (sym_type_alias_statement, STATE 11814),
    (sym_parameterized_alias_statement, STATE 11814), (sym_class_definition, STATE 927),
    (sym_trait_definition, STATE 927), (sym_decorated_definition, STATE 927),
    (sym_decorator, STATE 3670), (sym_block, STATE 4415), (sym_pattern, STATE 8086),
    (sym_tuple_pattern, STATE 8101), (sym_list_pattern, STATE 8101),
    (sym_list_splat_pattern, STATE 6819), (sym_as_pattern, STATE 7969),
    (sym_expression, STATE 9883), (sym_primary_expression, STATE 7326),
    (sym_comptime_expression, STATE 7017), (sym_transfer_expression, STATE 7017),
    (sym_not_operator, STATE 7969), (sym_boolean_operator, STATE 7969),
    (sym_binary_operator, STATE 7017), (sym_unary_operator, STATE 7017),
    (sym_comparison_operator, STATE 7969), (sym_lambda, STATE 7969),
    (sym_assignment, STATE 12425), (sym_augmented_assignment, STATE 12425),
    (sym_pattern_list, STATE 8578), (sym_yield, STATE 12425), (sym_attribute, STATE 6836),
    (sym_subscript, STATE 6838), (sym_call, STATE 6845), (sym_mlir_type, STATE 7017),
    (sym_list, STATE 7017), (sym_set, STATE 7017), (sym_tuple, STATE 7017),
    (sym_dictionary, STATE 7017), (sym_struct_literal, STATE 7017),
    (sym_list_comprehension, STATE 7017), (sym_dictionary_comprehension, STATE 7017),
    (sym_set_comprehension, STATE 7017), (sym_generator_expression, STATE 7017),
    (sym_parenthesized_expression, STATE 7017), (sym_conditional_expression, STATE 7969),
    (sym_concatenated_string, STATE 7017), (sym_string, STATE 6751), (sym_await, STATE 7017),
    (aux_sym_module_repeat1, STATE 927), (aux_sym_decorated_definition_repeat1, STATE 3670),
    (sym_identifier, ACTIONS 9), (anon_sym_import, ACTIONS 11), (anon_sym_from, ACTIONS 13),
    (anon_sym_LPAREN, ACTIONS 15), (anon_sym_STAR, ACTIONS 17), (anon_sym_print, ACTIONS 19),
    (anon_sym_comptime, ACTIONS 99), (anon_sym_assert, ACTIONS 23),
    (anon_sym___comptime_assert, ACTIONS 25), (anon_sym_return, ACTIONS 27),
    (anon_sym_del, ACTIONS 29), (anon_sym_raise, ACTIONS 31), (anon_sym_pass, ACTIONS 33),
    (anon_sym_break, ACTIONS 35), (anon_sym_continue, ACTIONS 37),
    (anon_sym___extension, ACTIONS 101), (anon_sym___mlir_region, ACTIONS 103),
    (anon_sym_if, ACTIONS 105), (anon_sym_match, ACTIONS 107), (anon_sym_async, ACTIONS 109),
    (anon_sym_for, ACTIONS 111), (anon_sym_while, ACTIONS 113), (anon_sym_try, ACTIONS 115),
    (anon_sym_with, ACTIONS 117), (anon_sym_def, ACTIONS 119), (anon_sym_fn, ACTIONS 119),
    (anon_sym_LBRACK, ACTIONS 59), (anon_sym_LBRACE, ACTIONS 61), (anon_sym_global, ACTIONS 63),
    (anon_sym_nonlocal, ACTIONS 65), (anon_sym_exec, ACTIONS 67), (anon_sym_type, ACTIONS 69),
    (anon_sym_class, ACTIONS 121), (anon_sym_struct, ACTIONS 121), (anon_sym_mut, ACTIONS 73),
    (anon_sym_out, ACTIONS 73), (anon_sym_trait, ACTIONS 123), (anon_sym_AT, ACTIONS 77),
    (anon_sym_DASH, ACTIONS 79), (anon_sym_PLUS, ACTIONS 79), (anon_sym_ref, ACTIONS 81),
    (anon_sym_var, ACTIONS 81), (anon_sym_not, ACTIONS 83), (anon_sym_TILDE, ACTIONS 79),
    (anon_sym_lambda, ACTIONS 85), (anon_sym_yield, ACTIONS 87), (sym_ellipsis, ACTIONS 89),
    (anon_sym___mlir_type, ACTIONS 91), (sym_integer, ACTIONS 93), (sym_float, ACTIONS 89),
    (anon_sym_await, ACTIONS 95), (sym_true, ACTIONS 93), (sym_false, ACTIONS 93),
    (sym_none, ACTIONS 93), (sym_comment, ACTIONS 3), (sym_line_continuation, ACTIONS 3),
    (sym__dedent, ACTIONS 125), (sym_string_start, ACTIONS 97)]"

definition parse_table_902 :: "(nat \<times> nat) list" where "parse_table_902 = [
    (sym__statement, STATE 927), (sym__simple_statements, STATE 927),
    (sym_import_statement, STATE 11814), (sym_future_import_statement, STATE 11814),
    (sym_import_from_statement, STATE 11814), (sym_print_statement, STATE 11814),
    (sym_assert_statement, STATE 11814), (sym_comptime_assert_statement, STATE 11814),
    (sym_expression_statement, STATE 11814), (sym_tuple_expression, STATE 12425),
    (sym_named_expression, STATE 7969), (sym__named_expression_lhs, STATE 12752),
    (sym_return_statement, STATE 11814), (sym_delete_statement, STATE 11814),
    (sym_raise_statement, STATE 11814), (sym_pass_statement, STATE 11814),
    (sym_break_statement, STATE 11814), (sym_continue_statement, STATE 11814),
    (sym_extension_definition, STATE 927), (sym_mlir_region, STATE 927),
    (sym_comptime_statement, STATE 927), (sym_if_statement, STATE 927),
    (sym_match_statement, STATE 927), (sym_for_statement, STATE 927),
    (sym_while_statement, STATE 927), (sym_try_statement, STATE 927),
    (sym_with_statement, STATE 927), (sym_function_definition, STATE 927),
    (sym_global_statement, STATE 11814), (sym_nonlocal_statement, STATE 11814),
    (sym_exec_statement, STATE 11814), (sym_type_alias_statement, STATE 11814),
    (sym_parameterized_alias_statement, STATE 11814), (sym_class_definition, STATE 927),
    (sym_trait_definition, STATE 927), (sym_decorated_definition, STATE 927),
    (sym_decorator, STATE 3670), (sym_block, STATE 4418), (sym_pattern, STATE 8086),
    (sym_tuple_pattern, STATE 8101), (sym_list_pattern, STATE 8101),
    (sym_list_splat_pattern, STATE 6819), (sym_as_pattern, STATE 7969),
    (sym_expression, STATE 9883), (sym_primary_expression, STATE 7326),
    (sym_comptime_expression, STATE 7017), (sym_transfer_expression, STATE 7017),
    (sym_not_operator, STATE 7969), (sym_boolean_operator, STATE 7969),
    (sym_binary_operator, STATE 7017), (sym_unary_operator, STATE 7017),
    (sym_comparison_operator, STATE 7969), (sym_lambda, STATE 7969),
    (sym_assignment, STATE 12425), (sym_augmented_assignment, STATE 12425),
    (sym_pattern_list, STATE 8578), (sym_yield, STATE 12425), (sym_attribute, STATE 6836),
    (sym_subscript, STATE 6838), (sym_call, STATE 6845), (sym_mlir_type, STATE 7017),
    (sym_list, STATE 7017), (sym_set, STATE 7017), (sym_tuple, STATE 7017),
    (sym_dictionary, STATE 7017), (sym_struct_literal, STATE 7017),
    (sym_list_comprehension, STATE 7017), (sym_dictionary_comprehension, STATE 7017),
    (sym_set_comprehension, STATE 7017), (sym_generator_expression, STATE 7017),
    (sym_parenthesized_expression, STATE 7017), (sym_conditional_expression, STATE 7969),
    (sym_concatenated_string, STATE 7017), (sym_string, STATE 6751), (sym_await, STATE 7017),
    (aux_sym_module_repeat1, STATE 927), (aux_sym_decorated_definition_repeat1, STATE 3670),
    (sym_identifier, ACTIONS 9), (anon_sym_import, ACTIONS 11), (anon_sym_from, ACTIONS 13),
    (anon_sym_LPAREN, ACTIONS 15), (anon_sym_STAR, ACTIONS 17), (anon_sym_print, ACTIONS 19),
    (anon_sym_comptime, ACTIONS 99), (anon_sym_assert, ACTIONS 23),
    (anon_sym___comptime_assert, ACTIONS 25), (anon_sym_return, ACTIONS 27),
    (anon_sym_del, ACTIONS 29), (anon_sym_raise, ACTIONS 31), (anon_sym_pass, ACTIONS 33),
    (anon_sym_break, ACTIONS 35), (anon_sym_continue, ACTIONS 37),
    (anon_sym___extension, ACTIONS 101), (anon_sym___mlir_region, ACTIONS 103),
    (anon_sym_if, ACTIONS 105), (anon_sym_match, ACTIONS 107), (anon_sym_async, ACTIONS 109),
    (anon_sym_for, ACTIONS 111), (anon_sym_while, ACTIONS 113), (anon_sym_try, ACTIONS 115),
    (anon_sym_with, ACTIONS 117), (anon_sym_def, ACTIONS 119), (anon_sym_fn, ACTIONS 119),
    (anon_sym_LBRACK, ACTIONS 59), (anon_sym_LBRACE, ACTIONS 61), (anon_sym_global, ACTIONS 63),
    (anon_sym_nonlocal, ACTIONS 65), (anon_sym_exec, ACTIONS 67), (anon_sym_type, ACTIONS 69),
    (anon_sym_class, ACTIONS 121), (anon_sym_struct, ACTIONS 121), (anon_sym_mut, ACTIONS 73),
    (anon_sym_out, ACTIONS 73), (anon_sym_trait, ACTIONS 123), (anon_sym_AT, ACTIONS 77),
    (anon_sym_DASH, ACTIONS 79), (anon_sym_PLUS, ACTIONS 79), (anon_sym_ref, ACTIONS 81),
    (anon_sym_var, ACTIONS 81), (anon_sym_not, ACTIONS 83), (anon_sym_TILDE, ACTIONS 79),
    (anon_sym_lambda, ACTIONS 85), (anon_sym_yield, ACTIONS 87), (sym_ellipsis, ACTIONS 89),
    (anon_sym___mlir_type, ACTIONS 91), (sym_integer, ACTIONS 93), (sym_float, ACTIONS 89),
    (anon_sym_await, ACTIONS 95), (sym_true, ACTIONS 93), (sym_false, ACTIONS 93),
    (sym_none, ACTIONS 93), (sym_comment, ACTIONS 3), (sym_line_continuation, ACTIONS 3),
    (sym__dedent, ACTIONS 125), (sym_string_start, ACTIONS 97)]"

definition parse_table_903 :: "(nat \<times> nat) list" where "parse_table_903 = [
    (sym__statement, STATE 927), (sym__simple_statements, STATE 927),
    (sym_import_statement, STATE 11814), (sym_future_import_statement, STATE 11814),
    (sym_import_from_statement, STATE 11814), (sym_print_statement, STATE 11814),
    (sym_assert_statement, STATE 11814), (sym_comptime_assert_statement, STATE 11814),
    (sym_expression_statement, STATE 11814), (sym_tuple_expression, STATE 12425),
    (sym_named_expression, STATE 7969), (sym__named_expression_lhs, STATE 12752),
    (sym_return_statement, STATE 11814), (sym_delete_statement, STATE 11814),
    (sym_raise_statement, STATE 11814), (sym_pass_statement, STATE 11814),
    (sym_break_statement, STATE 11814), (sym_continue_statement, STATE 11814),
    (sym_extension_definition, STATE 927), (sym_mlir_region, STATE 927),
    (sym_comptime_statement, STATE 927), (sym_if_statement, STATE 927),
    (sym_match_statement, STATE 927), (sym_for_statement, STATE 927),
    (sym_while_statement, STATE 927), (sym_try_statement, STATE 927),
    (sym_with_statement, STATE 927), (sym_function_definition, STATE 927),
    (sym_global_statement, STATE 11814), (sym_nonlocal_statement, STATE 11814),
    (sym_exec_statement, STATE 11814), (sym_type_alias_statement, STATE 11814),
    (sym_parameterized_alias_statement, STATE 11814), (sym_class_definition, STATE 927),
    (sym_trait_definition, STATE 927), (sym_decorated_definition, STATE 927),
    (sym_decorator, STATE 3670), (sym_block, STATE 4421), (sym_pattern, STATE 8086),
    (sym_tuple_pattern, STATE 8101), (sym_list_pattern, STATE 8101),
    (sym_list_splat_pattern, STATE 6819), (sym_as_pattern, STATE 7969),
    (sym_expression, STATE 9883), (sym_primary_expression, STATE 7326),
    (sym_comptime_expression, STATE 7017), (sym_transfer_expression, STATE 7017),
    (sym_not_operator, STATE 7969), (sym_boolean_operator, STATE 7969),
    (sym_binary_operator, STATE 7017), (sym_unary_operator, STATE 7017),
    (sym_comparison_operator, STATE 7969), (sym_lambda, STATE 7969),
    (sym_assignment, STATE 12425), (sym_augmented_assignment, STATE 12425),
    (sym_pattern_list, STATE 8578), (sym_yield, STATE 12425), (sym_attribute, STATE 6836),
    (sym_subscript, STATE 6838), (sym_call, STATE 6845), (sym_mlir_type, STATE 7017),
    (sym_list, STATE 7017), (sym_set, STATE 7017), (sym_tuple, STATE 7017),
    (sym_dictionary, STATE 7017), (sym_struct_literal, STATE 7017),
    (sym_list_comprehension, STATE 7017), (sym_dictionary_comprehension, STATE 7017),
    (sym_set_comprehension, STATE 7017), (sym_generator_expression, STATE 7017),
    (sym_parenthesized_expression, STATE 7017), (sym_conditional_expression, STATE 7969),
    (sym_concatenated_string, STATE 7017), (sym_string, STATE 6751), (sym_await, STATE 7017),
    (aux_sym_module_repeat1, STATE 927), (aux_sym_decorated_definition_repeat1, STATE 3670),
    (sym_identifier, ACTIONS 9), (anon_sym_import, ACTIONS 11), (anon_sym_from, ACTIONS 13),
    (anon_sym_LPAREN, ACTIONS 15), (anon_sym_STAR, ACTIONS 17), (anon_sym_print, ACTIONS 19),
    (anon_sym_comptime, ACTIONS 99), (anon_sym_assert, ACTIONS 23),
    (anon_sym___comptime_assert, ACTIONS 25), (anon_sym_return, ACTIONS 27),
    (anon_sym_del, ACTIONS 29), (anon_sym_raise, ACTIONS 31), (anon_sym_pass, ACTIONS 33),
    (anon_sym_break, ACTIONS 35), (anon_sym_continue, ACTIONS 37),
    (anon_sym___extension, ACTIONS 101), (anon_sym___mlir_region, ACTIONS 103),
    (anon_sym_if, ACTIONS 105), (anon_sym_match, ACTIONS 107), (anon_sym_async, ACTIONS 109),
    (anon_sym_for, ACTIONS 111), (anon_sym_while, ACTIONS 113), (anon_sym_try, ACTIONS 115),
    (anon_sym_with, ACTIONS 117), (anon_sym_def, ACTIONS 119), (anon_sym_fn, ACTIONS 119),
    (anon_sym_LBRACK, ACTIONS 59), (anon_sym_LBRACE, ACTIONS 61), (anon_sym_global, ACTIONS 63),
    (anon_sym_nonlocal, ACTIONS 65), (anon_sym_exec, ACTIONS 67), (anon_sym_type, ACTIONS 69),
    (anon_sym_class, ACTIONS 121), (anon_sym_struct, ACTIONS 121), (anon_sym_mut, ACTIONS 73),
    (anon_sym_out, ACTIONS 73), (anon_sym_trait, ACTIONS 123), (anon_sym_AT, ACTIONS 77),
    (anon_sym_DASH, ACTIONS 79), (anon_sym_PLUS, ACTIONS 79), (anon_sym_ref, ACTIONS 81),
    (anon_sym_var, ACTIONS 81), (anon_sym_not, ACTIONS 83), (anon_sym_TILDE, ACTIONS 79),
    (anon_sym_lambda, ACTIONS 85), (anon_sym_yield, ACTIONS 87), (sym_ellipsis, ACTIONS 89),
    (anon_sym___mlir_type, ACTIONS 91), (sym_integer, ACTIONS 93), (sym_float, ACTIONS 89),
    (anon_sym_await, ACTIONS 95), (sym_true, ACTIONS 93), (sym_false, ACTIONS 93),
    (sym_none, ACTIONS 93), (sym_comment, ACTIONS 3), (sym_line_continuation, ACTIONS 3),
    (sym__dedent, ACTIONS 125), (sym_string_start, ACTIONS 97)]"

definition parse_table_904 :: "(nat \<times> nat) list" where "parse_table_904 = [
    (sym__statement, STATE 927), (sym__simple_statements, STATE 927),
    (sym_import_statement, STATE 11814), (sym_future_import_statement, STATE 11814),
    (sym_import_from_statement, STATE 11814), (sym_print_statement, STATE 11814),
    (sym_assert_statement, STATE 11814), (sym_comptime_assert_statement, STATE 11814),
    (sym_expression_statement, STATE 11814), (sym_tuple_expression, STATE 12425),
    (sym_named_expression, STATE 7969), (sym__named_expression_lhs, STATE 12752),
    (sym_return_statement, STATE 11814), (sym_delete_statement, STATE 11814),
    (sym_raise_statement, STATE 11814), (sym_pass_statement, STATE 11814),
    (sym_break_statement, STATE 11814), (sym_continue_statement, STATE 11814),
    (sym_extension_definition, STATE 927), (sym_mlir_region, STATE 927),
    (sym_comptime_statement, STATE 927), (sym_if_statement, STATE 927),
    (sym_match_statement, STATE 927), (sym_for_statement, STATE 927),
    (sym_while_statement, STATE 927), (sym_try_statement, STATE 927),
    (sym_with_statement, STATE 927), (sym_function_definition, STATE 927),
    (sym_global_statement, STATE 11814), (sym_nonlocal_statement, STATE 11814),
    (sym_exec_statement, STATE 11814), (sym_type_alias_statement, STATE 11814),
    (sym_parameterized_alias_statement, STATE 11814), (sym_class_definition, STATE 927),
    (sym_trait_definition, STATE 927), (sym_decorated_definition, STATE 927),
    (sym_decorator, STATE 3670), (sym_block, STATE 4424), (sym_pattern, STATE 8086),
    (sym_tuple_pattern, STATE 8101), (sym_list_pattern, STATE 8101),
    (sym_list_splat_pattern, STATE 6819), (sym_as_pattern, STATE 7969),
    (sym_expression, STATE 9883), (sym_primary_expression, STATE 7326),
    (sym_comptime_expression, STATE 7017), (sym_transfer_expression, STATE 7017),
    (sym_not_operator, STATE 7969), (sym_boolean_operator, STATE 7969),
    (sym_binary_operator, STATE 7017), (sym_unary_operator, STATE 7017),
    (sym_comparison_operator, STATE 7969), (sym_lambda, STATE 7969),
    (sym_assignment, STATE 12425), (sym_augmented_assignment, STATE 12425),
    (sym_pattern_list, STATE 8578), (sym_yield, STATE 12425), (sym_attribute, STATE 6836),
    (sym_subscript, STATE 6838), (sym_call, STATE 6845), (sym_mlir_type, STATE 7017),
    (sym_list, STATE 7017), (sym_set, STATE 7017), (sym_tuple, STATE 7017),
    (sym_dictionary, STATE 7017), (sym_struct_literal, STATE 7017),
    (sym_list_comprehension, STATE 7017), (sym_dictionary_comprehension, STATE 7017),
    (sym_set_comprehension, STATE 7017), (sym_generator_expression, STATE 7017),
    (sym_parenthesized_expression, STATE 7017), (sym_conditional_expression, STATE 7969),
    (sym_concatenated_string, STATE 7017), (sym_string, STATE 6751), (sym_await, STATE 7017),
    (aux_sym_module_repeat1, STATE 927), (aux_sym_decorated_definition_repeat1, STATE 3670),
    (sym_identifier, ACTIONS 9), (anon_sym_import, ACTIONS 11), (anon_sym_from, ACTIONS 13),
    (anon_sym_LPAREN, ACTIONS 15), (anon_sym_STAR, ACTIONS 17), (anon_sym_print, ACTIONS 19),
    (anon_sym_comptime, ACTIONS 99), (anon_sym_assert, ACTIONS 23),
    (anon_sym___comptime_assert, ACTIONS 25), (anon_sym_return, ACTIONS 27),
    (anon_sym_del, ACTIONS 29), (anon_sym_raise, ACTIONS 31), (anon_sym_pass, ACTIONS 33),
    (anon_sym_break, ACTIONS 35), (anon_sym_continue, ACTIONS 37),
    (anon_sym___extension, ACTIONS 101), (anon_sym___mlir_region, ACTIONS 103),
    (anon_sym_if, ACTIONS 105), (anon_sym_match, ACTIONS 107), (anon_sym_async, ACTIONS 109),
    (anon_sym_for, ACTIONS 111), (anon_sym_while, ACTIONS 113), (anon_sym_try, ACTIONS 115),
    (anon_sym_with, ACTIONS 117), (anon_sym_def, ACTIONS 119), (anon_sym_fn, ACTIONS 119),
    (anon_sym_LBRACK, ACTIONS 59), (anon_sym_LBRACE, ACTIONS 61), (anon_sym_global, ACTIONS 63),
    (anon_sym_nonlocal, ACTIONS 65), (anon_sym_exec, ACTIONS 67), (anon_sym_type, ACTIONS 69),
    (anon_sym_class, ACTIONS 121), (anon_sym_struct, ACTIONS 121), (anon_sym_mut, ACTIONS 73),
    (anon_sym_out, ACTIONS 73), (anon_sym_trait, ACTIONS 123), (anon_sym_AT, ACTIONS 77),
    (anon_sym_DASH, ACTIONS 79), (anon_sym_PLUS, ACTIONS 79), (anon_sym_ref, ACTIONS 81),
    (anon_sym_var, ACTIONS 81), (anon_sym_not, ACTIONS 83), (anon_sym_TILDE, ACTIONS 79),
    (anon_sym_lambda, ACTIONS 85), (anon_sym_yield, ACTIONS 87), (sym_ellipsis, ACTIONS 89),
    (anon_sym___mlir_type, ACTIONS 91), (sym_integer, ACTIONS 93), (sym_float, ACTIONS 89),
    (anon_sym_await, ACTIONS 95), (sym_true, ACTIONS 93), (sym_false, ACTIONS 93),
    (sym_none, ACTIONS 93), (sym_comment, ACTIONS 3), (sym_line_continuation, ACTIONS 3),
    (sym__dedent, ACTIONS 125), (sym_string_start, ACTIONS 97)]"

definition parse_table_905 :: "(nat \<times> nat) list" where "parse_table_905 = [
    (sym__statement, STATE 927), (sym__simple_statements, STATE 927),
    (sym_import_statement, STATE 11814), (sym_future_import_statement, STATE 11814),
    (sym_import_from_statement, STATE 11814), (sym_print_statement, STATE 11814),
    (sym_assert_statement, STATE 11814), (sym_comptime_assert_statement, STATE 11814),
    (sym_expression_statement, STATE 11814), (sym_tuple_expression, STATE 12425),
    (sym_named_expression, STATE 7969), (sym__named_expression_lhs, STATE 12752),
    (sym_return_statement, STATE 11814), (sym_delete_statement, STATE 11814),
    (sym_raise_statement, STATE 11814), (sym_pass_statement, STATE 11814),
    (sym_break_statement, STATE 11814), (sym_continue_statement, STATE 11814),
    (sym_extension_definition, STATE 927), (sym_mlir_region, STATE 927),
    (sym_comptime_statement, STATE 927), (sym_if_statement, STATE 927),
    (sym_match_statement, STATE 927), (sym_for_statement, STATE 927),
    (sym_while_statement, STATE 927), (sym_try_statement, STATE 927),
    (sym_with_statement, STATE 927), (sym_function_definition, STATE 927),
    (sym_global_statement, STATE 11814), (sym_nonlocal_statement, STATE 11814),
    (sym_exec_statement, STATE 11814), (sym_type_alias_statement, STATE 11814),
    (sym_parameterized_alias_statement, STATE 11814), (sym_class_definition, STATE 927),
    (sym_trait_definition, STATE 927), (sym_decorated_definition, STATE 927),
    (sym_decorator, STATE 3670), (sym_block, STATE 4425), (sym_pattern, STATE 8086),
    (sym_tuple_pattern, STATE 8101), (sym_list_pattern, STATE 8101),
    (sym_list_splat_pattern, STATE 6819), (sym_as_pattern, STATE 7969),
    (sym_expression, STATE 9883), (sym_primary_expression, STATE 7326),
    (sym_comptime_expression, STATE 7017), (sym_transfer_expression, STATE 7017),
    (sym_not_operator, STATE 7969), (sym_boolean_operator, STATE 7969),
    (sym_binary_operator, STATE 7017), (sym_unary_operator, STATE 7017),
    (sym_comparison_operator, STATE 7969), (sym_lambda, STATE 7969),
    (sym_assignment, STATE 12425), (sym_augmented_assignment, STATE 12425),
    (sym_pattern_list, STATE 8578), (sym_yield, STATE 12425), (sym_attribute, STATE 6836),
    (sym_subscript, STATE 6838), (sym_call, STATE 6845), (sym_mlir_type, STATE 7017),
    (sym_list, STATE 7017), (sym_set, STATE 7017), (sym_tuple, STATE 7017),
    (sym_dictionary, STATE 7017), (sym_struct_literal, STATE 7017),
    (sym_list_comprehension, STATE 7017), (sym_dictionary_comprehension, STATE 7017),
    (sym_set_comprehension, STATE 7017), (sym_generator_expression, STATE 7017),
    (sym_parenthesized_expression, STATE 7017), (sym_conditional_expression, STATE 7969),
    (sym_concatenated_string, STATE 7017), (sym_string, STATE 6751), (sym_await, STATE 7017),
    (aux_sym_module_repeat1, STATE 927), (aux_sym_decorated_definition_repeat1, STATE 3670),
    (sym_identifier, ACTIONS 9), (anon_sym_import, ACTIONS 11), (anon_sym_from, ACTIONS 13),
    (anon_sym_LPAREN, ACTIONS 15), (anon_sym_STAR, ACTIONS 17), (anon_sym_print, ACTIONS 19),
    (anon_sym_comptime, ACTIONS 99), (anon_sym_assert, ACTIONS 23),
    (anon_sym___comptime_assert, ACTIONS 25), (anon_sym_return, ACTIONS 27),
    (anon_sym_del, ACTIONS 29), (anon_sym_raise, ACTIONS 31), (anon_sym_pass, ACTIONS 33),
    (anon_sym_break, ACTIONS 35), (anon_sym_continue, ACTIONS 37),
    (anon_sym___extension, ACTIONS 101), (anon_sym___mlir_region, ACTIONS 103),
    (anon_sym_if, ACTIONS 105), (anon_sym_match, ACTIONS 107), (anon_sym_async, ACTIONS 109),
    (anon_sym_for, ACTIONS 111), (anon_sym_while, ACTIONS 113), (anon_sym_try, ACTIONS 115),
    (anon_sym_with, ACTIONS 117), (anon_sym_def, ACTIONS 119), (anon_sym_fn, ACTIONS 119),
    (anon_sym_LBRACK, ACTIONS 59), (anon_sym_LBRACE, ACTIONS 61), (anon_sym_global, ACTIONS 63),
    (anon_sym_nonlocal, ACTIONS 65), (anon_sym_exec, ACTIONS 67), (anon_sym_type, ACTIONS 69),
    (anon_sym_class, ACTIONS 121), (anon_sym_struct, ACTIONS 121), (anon_sym_mut, ACTIONS 73),
    (anon_sym_out, ACTIONS 73), (anon_sym_trait, ACTIONS 123), (anon_sym_AT, ACTIONS 77),
    (anon_sym_DASH, ACTIONS 79), (anon_sym_PLUS, ACTIONS 79), (anon_sym_ref, ACTIONS 81),
    (anon_sym_var, ACTIONS 81), (anon_sym_not, ACTIONS 83), (anon_sym_TILDE, ACTIONS 79),
    (anon_sym_lambda, ACTIONS 85), (anon_sym_yield, ACTIONS 87), (sym_ellipsis, ACTIONS 89),
    (anon_sym___mlir_type, ACTIONS 91), (sym_integer, ACTIONS 93), (sym_float, ACTIONS 89),
    (anon_sym_await, ACTIONS 95), (sym_true, ACTIONS 93), (sym_false, ACTIONS 93),
    (sym_none, ACTIONS 93), (sym_comment, ACTIONS 3), (sym_line_continuation, ACTIONS 3),
    (sym__dedent, ACTIONS 125), (sym_string_start, ACTIONS 97)]"

definition parse_table_906 :: "(nat \<times> nat) list" where "parse_table_906 = [
    (sym__statement, STATE 927), (sym__simple_statements, STATE 927),
    (sym_import_statement, STATE 11814), (sym_future_import_statement, STATE 11814),
    (sym_import_from_statement, STATE 11814), (sym_print_statement, STATE 11814),
    (sym_assert_statement, STATE 11814), (sym_comptime_assert_statement, STATE 11814),
    (sym_expression_statement, STATE 11814), (sym_tuple_expression, STATE 12425),
    (sym_named_expression, STATE 7969), (sym__named_expression_lhs, STATE 12752),
    (sym_return_statement, STATE 11814), (sym_delete_statement, STATE 11814),
    (sym_raise_statement, STATE 11814), (sym_pass_statement, STATE 11814),
    (sym_break_statement, STATE 11814), (sym_continue_statement, STATE 11814),
    (sym_extension_definition, STATE 927), (sym_mlir_region, STATE 927),
    (sym_comptime_statement, STATE 927), (sym_if_statement, STATE 927),
    (sym_match_statement, STATE 927), (sym_for_statement, STATE 927),
    (sym_while_statement, STATE 927), (sym_try_statement, STATE 927),
    (sym_with_statement, STATE 927), (sym_function_definition, STATE 927),
    (sym_global_statement, STATE 11814), (sym_nonlocal_statement, STATE 11814),
    (sym_exec_statement, STATE 11814), (sym_type_alias_statement, STATE 11814),
    (sym_parameterized_alias_statement, STATE 11814), (sym_class_definition, STATE 927),
    (sym_trait_definition, STATE 927), (sym_decorated_definition, STATE 927),
    (sym_decorator, STATE 3670), (sym_block, STATE 4426), (sym_pattern, STATE 8086),
    (sym_tuple_pattern, STATE 8101), (sym_list_pattern, STATE 8101),
    (sym_list_splat_pattern, STATE 6819), (sym_as_pattern, STATE 7969),
    (sym_expression, STATE 9883), (sym_primary_expression, STATE 7326),
    (sym_comptime_expression, STATE 7017), (sym_transfer_expression, STATE 7017),
    (sym_not_operator, STATE 7969), (sym_boolean_operator, STATE 7969),
    (sym_binary_operator, STATE 7017), (sym_unary_operator, STATE 7017),
    (sym_comparison_operator, STATE 7969), (sym_lambda, STATE 7969),
    (sym_assignment, STATE 12425), (sym_augmented_assignment, STATE 12425),
    (sym_pattern_list, STATE 8578), (sym_yield, STATE 12425), (sym_attribute, STATE 6836),
    (sym_subscript, STATE 6838), (sym_call, STATE 6845), (sym_mlir_type, STATE 7017),
    (sym_list, STATE 7017), (sym_set, STATE 7017), (sym_tuple, STATE 7017),
    (sym_dictionary, STATE 7017), (sym_struct_literal, STATE 7017),
    (sym_list_comprehension, STATE 7017), (sym_dictionary_comprehension, STATE 7017),
    (sym_set_comprehension, STATE 7017), (sym_generator_expression, STATE 7017),
    (sym_parenthesized_expression, STATE 7017), (sym_conditional_expression, STATE 7969),
    (sym_concatenated_string, STATE 7017), (sym_string, STATE 6751), (sym_await, STATE 7017),
    (aux_sym_module_repeat1, STATE 927), (aux_sym_decorated_definition_repeat1, STATE 3670),
    (sym_identifier, ACTIONS 9), (anon_sym_import, ACTIONS 11), (anon_sym_from, ACTIONS 13),
    (anon_sym_LPAREN, ACTIONS 15), (anon_sym_STAR, ACTIONS 17), (anon_sym_print, ACTIONS 19),
    (anon_sym_comptime, ACTIONS 99), (anon_sym_assert, ACTIONS 23),
    (anon_sym___comptime_assert, ACTIONS 25), (anon_sym_return, ACTIONS 27),
    (anon_sym_del, ACTIONS 29), (anon_sym_raise, ACTIONS 31), (anon_sym_pass, ACTIONS 33),
    (anon_sym_break, ACTIONS 35), (anon_sym_continue, ACTIONS 37),
    (anon_sym___extension, ACTIONS 101), (anon_sym___mlir_region, ACTIONS 103),
    (anon_sym_if, ACTIONS 105), (anon_sym_match, ACTIONS 107), (anon_sym_async, ACTIONS 109),
    (anon_sym_for, ACTIONS 111), (anon_sym_while, ACTIONS 113), (anon_sym_try, ACTIONS 115),
    (anon_sym_with, ACTIONS 117), (anon_sym_def, ACTIONS 119), (anon_sym_fn, ACTIONS 119),
    (anon_sym_LBRACK, ACTIONS 59), (anon_sym_LBRACE, ACTIONS 61), (anon_sym_global, ACTIONS 63),
    (anon_sym_nonlocal, ACTIONS 65), (anon_sym_exec, ACTIONS 67), (anon_sym_type, ACTIONS 69),
    (anon_sym_class, ACTIONS 121), (anon_sym_struct, ACTIONS 121), (anon_sym_mut, ACTIONS 73),
    (anon_sym_out, ACTIONS 73), (anon_sym_trait, ACTIONS 123), (anon_sym_AT, ACTIONS 77),
    (anon_sym_DASH, ACTIONS 79), (anon_sym_PLUS, ACTIONS 79), (anon_sym_ref, ACTIONS 81),
    (anon_sym_var, ACTIONS 81), (anon_sym_not, ACTIONS 83), (anon_sym_TILDE, ACTIONS 79),
    (anon_sym_lambda, ACTIONS 85), (anon_sym_yield, ACTIONS 87), (sym_ellipsis, ACTIONS 89),
    (anon_sym___mlir_type, ACTIONS 91), (sym_integer, ACTIONS 93), (sym_float, ACTIONS 89),
    (anon_sym_await, ACTIONS 95), (sym_true, ACTIONS 93), (sym_false, ACTIONS 93),
    (sym_none, ACTIONS 93), (sym_comment, ACTIONS 3), (sym_line_continuation, ACTIONS 3),
    (sym__dedent, ACTIONS 125), (sym_string_start, ACTIONS 97)]"

definition parse_table_907 :: "(nat \<times> nat) list" where "parse_table_907 = [
    (sym__statement, STATE 927), (sym__simple_statements, STATE 927),
    (sym_import_statement, STATE 11814), (sym_future_import_statement, STATE 11814),
    (sym_import_from_statement, STATE 11814), (sym_print_statement, STATE 11814),
    (sym_assert_statement, STATE 11814), (sym_comptime_assert_statement, STATE 11814),
    (sym_expression_statement, STATE 11814), (sym_tuple_expression, STATE 12425),
    (sym_named_expression, STATE 7969), (sym__named_expression_lhs, STATE 12752),
    (sym_return_statement, STATE 11814), (sym_delete_statement, STATE 11814),
    (sym_raise_statement, STATE 11814), (sym_pass_statement, STATE 11814),
    (sym_break_statement, STATE 11814), (sym_continue_statement, STATE 11814),
    (sym_extension_definition, STATE 927), (sym_mlir_region, STATE 927),
    (sym_comptime_statement, STATE 927), (sym_if_statement, STATE 927),
    (sym_match_statement, STATE 927), (sym_for_statement, STATE 927),
    (sym_while_statement, STATE 927), (sym_try_statement, STATE 927),
    (sym_with_statement, STATE 927), (sym_function_definition, STATE 927),
    (sym_global_statement, STATE 11814), (sym_nonlocal_statement, STATE 11814),
    (sym_exec_statement, STATE 11814), (sym_type_alias_statement, STATE 11814),
    (sym_parameterized_alias_statement, STATE 11814), (sym_class_definition, STATE 927),
    (sym_trait_definition, STATE 927), (sym_decorated_definition, STATE 927),
    (sym_decorator, STATE 3670), (sym_block, STATE 4427), (sym_pattern, STATE 8086),
    (sym_tuple_pattern, STATE 8101), (sym_list_pattern, STATE 8101),
    (sym_list_splat_pattern, STATE 6819), (sym_as_pattern, STATE 7969),
    (sym_expression, STATE 9883), (sym_primary_expression, STATE 7326),
    (sym_comptime_expression, STATE 7017), (sym_transfer_expression, STATE 7017),
    (sym_not_operator, STATE 7969), (sym_boolean_operator, STATE 7969),
    (sym_binary_operator, STATE 7017), (sym_unary_operator, STATE 7017),
    (sym_comparison_operator, STATE 7969), (sym_lambda, STATE 7969),
    (sym_assignment, STATE 12425), (sym_augmented_assignment, STATE 12425),
    (sym_pattern_list, STATE 8578), (sym_yield, STATE 12425), (sym_attribute, STATE 6836),
    (sym_subscript, STATE 6838), (sym_call, STATE 6845), (sym_mlir_type, STATE 7017),
    (sym_list, STATE 7017), (sym_set, STATE 7017), (sym_tuple, STATE 7017),
    (sym_dictionary, STATE 7017), (sym_struct_literal, STATE 7017),
    (sym_list_comprehension, STATE 7017), (sym_dictionary_comprehension, STATE 7017),
    (sym_set_comprehension, STATE 7017), (sym_generator_expression, STATE 7017),
    (sym_parenthesized_expression, STATE 7017), (sym_conditional_expression, STATE 7969),
    (sym_concatenated_string, STATE 7017), (sym_string, STATE 6751), (sym_await, STATE 7017),
    (aux_sym_module_repeat1, STATE 927), (aux_sym_decorated_definition_repeat1, STATE 3670),
    (sym_identifier, ACTIONS 9), (anon_sym_import, ACTIONS 11), (anon_sym_from, ACTIONS 13),
    (anon_sym_LPAREN, ACTIONS 15), (anon_sym_STAR, ACTIONS 17), (anon_sym_print, ACTIONS 19),
    (anon_sym_comptime, ACTIONS 99), (anon_sym_assert, ACTIONS 23),
    (anon_sym___comptime_assert, ACTIONS 25), (anon_sym_return, ACTIONS 27),
    (anon_sym_del, ACTIONS 29), (anon_sym_raise, ACTIONS 31), (anon_sym_pass, ACTIONS 33),
    (anon_sym_break, ACTIONS 35), (anon_sym_continue, ACTIONS 37),
    (anon_sym___extension, ACTIONS 101), (anon_sym___mlir_region, ACTIONS 103),
    (anon_sym_if, ACTIONS 105), (anon_sym_match, ACTIONS 107), (anon_sym_async, ACTIONS 109),
    (anon_sym_for, ACTIONS 111), (anon_sym_while, ACTIONS 113), (anon_sym_try, ACTIONS 115),
    (anon_sym_with, ACTIONS 117), (anon_sym_def, ACTIONS 119), (anon_sym_fn, ACTIONS 119),
    (anon_sym_LBRACK, ACTIONS 59), (anon_sym_LBRACE, ACTIONS 61), (anon_sym_global, ACTIONS 63),
    (anon_sym_nonlocal, ACTIONS 65), (anon_sym_exec, ACTIONS 67), (anon_sym_type, ACTIONS 69),
    (anon_sym_class, ACTIONS 121), (anon_sym_struct, ACTIONS 121), (anon_sym_mut, ACTIONS 73),
    (anon_sym_out, ACTIONS 73), (anon_sym_trait, ACTIONS 123), (anon_sym_AT, ACTIONS 77),
    (anon_sym_DASH, ACTIONS 79), (anon_sym_PLUS, ACTIONS 79), (anon_sym_ref, ACTIONS 81),
    (anon_sym_var, ACTIONS 81), (anon_sym_not, ACTIONS 83), (anon_sym_TILDE, ACTIONS 79),
    (anon_sym_lambda, ACTIONS 85), (anon_sym_yield, ACTIONS 87), (sym_ellipsis, ACTIONS 89),
    (anon_sym___mlir_type, ACTIONS 91), (sym_integer, ACTIONS 93), (sym_float, ACTIONS 89),
    (anon_sym_await, ACTIONS 95), (sym_true, ACTIONS 93), (sym_false, ACTIONS 93),
    (sym_none, ACTIONS 93), (sym_comment, ACTIONS 3), (sym_line_continuation, ACTIONS 3),
    (sym__dedent, ACTIONS 125), (sym_string_start, ACTIONS 97)]"

definition parse_table_908 :: "(nat \<times> nat) list" where "parse_table_908 = [
    (sym__statement, STATE 927), (sym__simple_statements, STATE 927),
    (sym_import_statement, STATE 11814), (sym_future_import_statement, STATE 11814),
    (sym_import_from_statement, STATE 11814), (sym_print_statement, STATE 11814),
    (sym_assert_statement, STATE 11814), (sym_comptime_assert_statement, STATE 11814),
    (sym_expression_statement, STATE 11814), (sym_tuple_expression, STATE 12425),
    (sym_named_expression, STATE 7969), (sym__named_expression_lhs, STATE 12752),
    (sym_return_statement, STATE 11814), (sym_delete_statement, STATE 11814),
    (sym_raise_statement, STATE 11814), (sym_pass_statement, STATE 11814),
    (sym_break_statement, STATE 11814), (sym_continue_statement, STATE 11814),
    (sym_extension_definition, STATE 927), (sym_mlir_region, STATE 927),
    (sym_comptime_statement, STATE 927), (sym_if_statement, STATE 927),
    (sym_match_statement, STATE 927), (sym_for_statement, STATE 927),
    (sym_while_statement, STATE 927), (sym_try_statement, STATE 927),
    (sym_with_statement, STATE 927), (sym_function_definition, STATE 927),
    (sym_global_statement, STATE 11814), (sym_nonlocal_statement, STATE 11814),
    (sym_exec_statement, STATE 11814), (sym_type_alias_statement, STATE 11814),
    (sym_parameterized_alias_statement, STATE 11814), (sym_class_definition, STATE 927),
    (sym_trait_definition, STATE 927), (sym_decorated_definition, STATE 927),
    (sym_decorator, STATE 3670), (sym_block, STATE 4428), (sym_pattern, STATE 8086),
    (sym_tuple_pattern, STATE 8101), (sym_list_pattern, STATE 8101),
    (sym_list_splat_pattern, STATE 6819), (sym_as_pattern, STATE 7969),
    (sym_expression, STATE 9883), (sym_primary_expression, STATE 7326),
    (sym_comptime_expression, STATE 7017), (sym_transfer_expression, STATE 7017),
    (sym_not_operator, STATE 7969), (sym_boolean_operator, STATE 7969),
    (sym_binary_operator, STATE 7017), (sym_unary_operator, STATE 7017),
    (sym_comparison_operator, STATE 7969), (sym_lambda, STATE 7969),
    (sym_assignment, STATE 12425), (sym_augmented_assignment, STATE 12425),
    (sym_pattern_list, STATE 8578), (sym_yield, STATE 12425), (sym_attribute, STATE 6836),
    (sym_subscript, STATE 6838), (sym_call, STATE 6845), (sym_mlir_type, STATE 7017),
    (sym_list, STATE 7017), (sym_set, STATE 7017), (sym_tuple, STATE 7017),
    (sym_dictionary, STATE 7017), (sym_struct_literal, STATE 7017),
    (sym_list_comprehension, STATE 7017), (sym_dictionary_comprehension, STATE 7017),
    (sym_set_comprehension, STATE 7017), (sym_generator_expression, STATE 7017),
    (sym_parenthesized_expression, STATE 7017), (sym_conditional_expression, STATE 7969),
    (sym_concatenated_string, STATE 7017), (sym_string, STATE 6751), (sym_await, STATE 7017),
    (aux_sym_module_repeat1, STATE 927), (aux_sym_decorated_definition_repeat1, STATE 3670),
    (sym_identifier, ACTIONS 9), (anon_sym_import, ACTIONS 11), (anon_sym_from, ACTIONS 13),
    (anon_sym_LPAREN, ACTIONS 15), (anon_sym_STAR, ACTIONS 17), (anon_sym_print, ACTIONS 19),
    (anon_sym_comptime, ACTIONS 99), (anon_sym_assert, ACTIONS 23),
    (anon_sym___comptime_assert, ACTIONS 25), (anon_sym_return, ACTIONS 27),
    (anon_sym_del, ACTIONS 29), (anon_sym_raise, ACTIONS 31), (anon_sym_pass, ACTIONS 33),
    (anon_sym_break, ACTIONS 35), (anon_sym_continue, ACTIONS 37),
    (anon_sym___extension, ACTIONS 101), (anon_sym___mlir_region, ACTIONS 103),
    (anon_sym_if, ACTIONS 105), (anon_sym_match, ACTIONS 107), (anon_sym_async, ACTIONS 109),
    (anon_sym_for, ACTIONS 111), (anon_sym_while, ACTIONS 113), (anon_sym_try, ACTIONS 115),
    (anon_sym_with, ACTIONS 117), (anon_sym_def, ACTIONS 119), (anon_sym_fn, ACTIONS 119),
    (anon_sym_LBRACK, ACTIONS 59), (anon_sym_LBRACE, ACTIONS 61), (anon_sym_global, ACTIONS 63),
    (anon_sym_nonlocal, ACTIONS 65), (anon_sym_exec, ACTIONS 67), (anon_sym_type, ACTIONS 69),
    (anon_sym_class, ACTIONS 121), (anon_sym_struct, ACTIONS 121), (anon_sym_mut, ACTIONS 73),
    (anon_sym_out, ACTIONS 73), (anon_sym_trait, ACTIONS 123), (anon_sym_AT, ACTIONS 77),
    (anon_sym_DASH, ACTIONS 79), (anon_sym_PLUS, ACTIONS 79), (anon_sym_ref, ACTIONS 81),
    (anon_sym_var, ACTIONS 81), (anon_sym_not, ACTIONS 83), (anon_sym_TILDE, ACTIONS 79),
    (anon_sym_lambda, ACTIONS 85), (anon_sym_yield, ACTIONS 87), (sym_ellipsis, ACTIONS 89),
    (anon_sym___mlir_type, ACTIONS 91), (sym_integer, ACTIONS 93), (sym_float, ACTIONS 89),
    (anon_sym_await, ACTIONS 95), (sym_true, ACTIONS 93), (sym_false, ACTIONS 93),
    (sym_none, ACTIONS 93), (sym_comment, ACTIONS 3), (sym_line_continuation, ACTIONS 3),
    (sym__dedent, ACTIONS 125), (sym_string_start, ACTIONS 97)]"

definition parse_table_909 :: "(nat \<times> nat) list" where "parse_table_909 = [
    (sym__statement, STATE 927), (sym__simple_statements, STATE 927),
    (sym_import_statement, STATE 11814), (sym_future_import_statement, STATE 11814),
    (sym_import_from_statement, STATE 11814), (sym_print_statement, STATE 11814),
    (sym_assert_statement, STATE 11814), (sym_comptime_assert_statement, STATE 11814),
    (sym_expression_statement, STATE 11814), (sym_tuple_expression, STATE 12425),
    (sym_named_expression, STATE 7969), (sym__named_expression_lhs, STATE 12752),
    (sym_return_statement, STATE 11814), (sym_delete_statement, STATE 11814),
    (sym_raise_statement, STATE 11814), (sym_pass_statement, STATE 11814),
    (sym_break_statement, STATE 11814), (sym_continue_statement, STATE 11814),
    (sym_extension_definition, STATE 927), (sym_mlir_region, STATE 927),
    (sym_comptime_statement, STATE 927), (sym_if_statement, STATE 927),
    (sym_match_statement, STATE 927), (sym_for_statement, STATE 927),
    (sym_while_statement, STATE 927), (sym_try_statement, STATE 927),
    (sym_with_statement, STATE 927), (sym_function_definition, STATE 927),
    (sym_global_statement, STATE 11814), (sym_nonlocal_statement, STATE 11814),
    (sym_exec_statement, STATE 11814), (sym_type_alias_statement, STATE 11814),
    (sym_parameterized_alias_statement, STATE 11814), (sym_class_definition, STATE 927),
    (sym_trait_definition, STATE 927), (sym_decorated_definition, STATE 927),
    (sym_decorator, STATE 3670), (sym_block, STATE 4429), (sym_pattern, STATE 8086),
    (sym_tuple_pattern, STATE 8101), (sym_list_pattern, STATE 8101),
    (sym_list_splat_pattern, STATE 6819), (sym_as_pattern, STATE 7969),
    (sym_expression, STATE 9883), (sym_primary_expression, STATE 7326),
    (sym_comptime_expression, STATE 7017), (sym_transfer_expression, STATE 7017),
    (sym_not_operator, STATE 7969), (sym_boolean_operator, STATE 7969),
    (sym_binary_operator, STATE 7017), (sym_unary_operator, STATE 7017),
    (sym_comparison_operator, STATE 7969), (sym_lambda, STATE 7969),
    (sym_assignment, STATE 12425), (sym_augmented_assignment, STATE 12425),
    (sym_pattern_list, STATE 8578), (sym_yield, STATE 12425), (sym_attribute, STATE 6836),
    (sym_subscript, STATE 6838), (sym_call, STATE 6845), (sym_mlir_type, STATE 7017),
    (sym_list, STATE 7017), (sym_set, STATE 7017), (sym_tuple, STATE 7017),
    (sym_dictionary, STATE 7017), (sym_struct_literal, STATE 7017),
    (sym_list_comprehension, STATE 7017), (sym_dictionary_comprehension, STATE 7017),
    (sym_set_comprehension, STATE 7017), (sym_generator_expression, STATE 7017),
    (sym_parenthesized_expression, STATE 7017), (sym_conditional_expression, STATE 7969),
    (sym_concatenated_string, STATE 7017), (sym_string, STATE 6751), (sym_await, STATE 7017),
    (aux_sym_module_repeat1, STATE 927), (aux_sym_decorated_definition_repeat1, STATE 3670),
    (sym_identifier, ACTIONS 9), (anon_sym_import, ACTIONS 11), (anon_sym_from, ACTIONS 13),
    (anon_sym_LPAREN, ACTIONS 15), (anon_sym_STAR, ACTIONS 17), (anon_sym_print, ACTIONS 19),
    (anon_sym_comptime, ACTIONS 99), (anon_sym_assert, ACTIONS 23),
    (anon_sym___comptime_assert, ACTIONS 25), (anon_sym_return, ACTIONS 27),
    (anon_sym_del, ACTIONS 29), (anon_sym_raise, ACTIONS 31), (anon_sym_pass, ACTIONS 33),
    (anon_sym_break, ACTIONS 35), (anon_sym_continue, ACTIONS 37),
    (anon_sym___extension, ACTIONS 101), (anon_sym___mlir_region, ACTIONS 103),
    (anon_sym_if, ACTIONS 105), (anon_sym_match, ACTIONS 107), (anon_sym_async, ACTIONS 109),
    (anon_sym_for, ACTIONS 111), (anon_sym_while, ACTIONS 113), (anon_sym_try, ACTIONS 115),
    (anon_sym_with, ACTIONS 117), (anon_sym_def, ACTIONS 119), (anon_sym_fn, ACTIONS 119),
    (anon_sym_LBRACK, ACTIONS 59), (anon_sym_LBRACE, ACTIONS 61), (anon_sym_global, ACTIONS 63),
    (anon_sym_nonlocal, ACTIONS 65), (anon_sym_exec, ACTIONS 67), (anon_sym_type, ACTIONS 69),
    (anon_sym_class, ACTIONS 121), (anon_sym_struct, ACTIONS 121), (anon_sym_mut, ACTIONS 73),
    (anon_sym_out, ACTIONS 73), (anon_sym_trait, ACTIONS 123), (anon_sym_AT, ACTIONS 77),
    (anon_sym_DASH, ACTIONS 79), (anon_sym_PLUS, ACTIONS 79), (anon_sym_ref, ACTIONS 81),
    (anon_sym_var, ACTIONS 81), (anon_sym_not, ACTIONS 83), (anon_sym_TILDE, ACTIONS 79),
    (anon_sym_lambda, ACTIONS 85), (anon_sym_yield, ACTIONS 87), (sym_ellipsis, ACTIONS 89),
    (anon_sym___mlir_type, ACTIONS 91), (sym_integer, ACTIONS 93), (sym_float, ACTIONS 89),
    (anon_sym_await, ACTIONS 95), (sym_true, ACTIONS 93), (sym_false, ACTIONS 93),
    (sym_none, ACTIONS 93), (sym_comment, ACTIONS 3), (sym_line_continuation, ACTIONS 3),
    (sym__dedent, ACTIONS 125), (sym_string_start, ACTIONS 97)]"

definition parse_table_910 :: "(nat \<times> nat) list" where "parse_table_910 = [
    (sym__statement, STATE 927), (sym__simple_statements, STATE 927),
    (sym_import_statement, STATE 11814), (sym_future_import_statement, STATE 11814),
    (sym_import_from_statement, STATE 11814), (sym_print_statement, STATE 11814),
    (sym_assert_statement, STATE 11814), (sym_comptime_assert_statement, STATE 11814),
    (sym_expression_statement, STATE 11814), (sym_tuple_expression, STATE 12425),
    (sym_named_expression, STATE 7969), (sym__named_expression_lhs, STATE 12752),
    (sym_return_statement, STATE 11814), (sym_delete_statement, STATE 11814),
    (sym_raise_statement, STATE 11814), (sym_pass_statement, STATE 11814),
    (sym_break_statement, STATE 11814), (sym_continue_statement, STATE 11814),
    (sym_extension_definition, STATE 927), (sym_mlir_region, STATE 927),
    (sym_comptime_statement, STATE 927), (sym_if_statement, STATE 927),
    (sym_match_statement, STATE 927), (sym_for_statement, STATE 927),
    (sym_while_statement, STATE 927), (sym_try_statement, STATE 927),
    (sym_with_statement, STATE 927), (sym_function_definition, STATE 927),
    (sym_global_statement, STATE 11814), (sym_nonlocal_statement, STATE 11814),
    (sym_exec_statement, STATE 11814), (sym_type_alias_statement, STATE 11814),
    (sym_parameterized_alias_statement, STATE 11814), (sym_class_definition, STATE 927),
    (sym_trait_definition, STATE 927), (sym_decorated_definition, STATE 927),
    (sym_decorator, STATE 3670), (sym_block, STATE 4432), (sym_pattern, STATE 8086),
    (sym_tuple_pattern, STATE 8101), (sym_list_pattern, STATE 8101),
    (sym_list_splat_pattern, STATE 6819), (sym_as_pattern, STATE 7969),
    (sym_expression, STATE 9883), (sym_primary_expression, STATE 7326),
    (sym_comptime_expression, STATE 7017), (sym_transfer_expression, STATE 7017),
    (sym_not_operator, STATE 7969), (sym_boolean_operator, STATE 7969),
    (sym_binary_operator, STATE 7017), (sym_unary_operator, STATE 7017),
    (sym_comparison_operator, STATE 7969), (sym_lambda, STATE 7969),
    (sym_assignment, STATE 12425), (sym_augmented_assignment, STATE 12425),
    (sym_pattern_list, STATE 8578), (sym_yield, STATE 12425), (sym_attribute, STATE 6836),
    (sym_subscript, STATE 6838), (sym_call, STATE 6845), (sym_mlir_type, STATE 7017),
    (sym_list, STATE 7017), (sym_set, STATE 7017), (sym_tuple, STATE 7017),
    (sym_dictionary, STATE 7017), (sym_struct_literal, STATE 7017),
    (sym_list_comprehension, STATE 7017), (sym_dictionary_comprehension, STATE 7017),
    (sym_set_comprehension, STATE 7017), (sym_generator_expression, STATE 7017),
    (sym_parenthesized_expression, STATE 7017), (sym_conditional_expression, STATE 7969),
    (sym_concatenated_string, STATE 7017), (sym_string, STATE 6751), (sym_await, STATE 7017),
    (aux_sym_module_repeat1, STATE 927), (aux_sym_decorated_definition_repeat1, STATE 3670),
    (sym_identifier, ACTIONS 9), (anon_sym_import, ACTIONS 11), (anon_sym_from, ACTIONS 13),
    (anon_sym_LPAREN, ACTIONS 15), (anon_sym_STAR, ACTIONS 17), (anon_sym_print, ACTIONS 19),
    (anon_sym_comptime, ACTIONS 99), (anon_sym_assert, ACTIONS 23),
    (anon_sym___comptime_assert, ACTIONS 25), (anon_sym_return, ACTIONS 27),
    (anon_sym_del, ACTIONS 29), (anon_sym_raise, ACTIONS 31), (anon_sym_pass, ACTIONS 33),
    (anon_sym_break, ACTIONS 35), (anon_sym_continue, ACTIONS 37),
    (anon_sym___extension, ACTIONS 101), (anon_sym___mlir_region, ACTIONS 103),
    (anon_sym_if, ACTIONS 105), (anon_sym_match, ACTIONS 107), (anon_sym_async, ACTIONS 109),
    (anon_sym_for, ACTIONS 111), (anon_sym_while, ACTIONS 113), (anon_sym_try, ACTIONS 115),
    (anon_sym_with, ACTIONS 117), (anon_sym_def, ACTIONS 119), (anon_sym_fn, ACTIONS 119),
    (anon_sym_LBRACK, ACTIONS 59), (anon_sym_LBRACE, ACTIONS 61), (anon_sym_global, ACTIONS 63),
    (anon_sym_nonlocal, ACTIONS 65), (anon_sym_exec, ACTIONS 67), (anon_sym_type, ACTIONS 69),
    (anon_sym_class, ACTIONS 121), (anon_sym_struct, ACTIONS 121), (anon_sym_mut, ACTIONS 73),
    (anon_sym_out, ACTIONS 73), (anon_sym_trait, ACTIONS 123), (anon_sym_AT, ACTIONS 77),
    (anon_sym_DASH, ACTIONS 79), (anon_sym_PLUS, ACTIONS 79), (anon_sym_ref, ACTIONS 81),
    (anon_sym_var, ACTIONS 81), (anon_sym_not, ACTIONS 83), (anon_sym_TILDE, ACTIONS 79),
    (anon_sym_lambda, ACTIONS 85), (anon_sym_yield, ACTIONS 87), (sym_ellipsis, ACTIONS 89),
    (anon_sym___mlir_type, ACTIONS 91), (sym_integer, ACTIONS 93), (sym_float, ACTIONS 89),
    (anon_sym_await, ACTIONS 95), (sym_true, ACTIONS 93), (sym_false, ACTIONS 93),
    (sym_none, ACTIONS 93), (sym_comment, ACTIONS 3), (sym_line_continuation, ACTIONS 3),
    (sym__dedent, ACTIONS 125), (sym_string_start, ACTIONS 97)]"

definition parse_table_911 :: "(nat \<times> nat) list" where "parse_table_911 = [
    (sym__statement, STATE 927), (sym__simple_statements, STATE 927),
    (sym_import_statement, STATE 11814), (sym_future_import_statement, STATE 11814),
    (sym_import_from_statement, STATE 11814), (sym_print_statement, STATE 11814),
    (sym_assert_statement, STATE 11814), (sym_comptime_assert_statement, STATE 11814),
    (sym_expression_statement, STATE 11814), (sym_tuple_expression, STATE 12425),
    (sym_named_expression, STATE 7969), (sym__named_expression_lhs, STATE 12752),
    (sym_return_statement, STATE 11814), (sym_delete_statement, STATE 11814),
    (sym_raise_statement, STATE 11814), (sym_pass_statement, STATE 11814),
    (sym_break_statement, STATE 11814), (sym_continue_statement, STATE 11814),
    (sym_extension_definition, STATE 927), (sym_mlir_region, STATE 927),
    (sym_comptime_statement, STATE 927), (sym_if_statement, STATE 927),
    (sym_match_statement, STATE 927), (sym_for_statement, STATE 927),
    (sym_while_statement, STATE 927), (sym_try_statement, STATE 927),
    (sym_with_statement, STATE 927), (sym_function_definition, STATE 927),
    (sym_global_statement, STATE 11814), (sym_nonlocal_statement, STATE 11814),
    (sym_exec_statement, STATE 11814), (sym_type_alias_statement, STATE 11814),
    (sym_parameterized_alias_statement, STATE 11814), (sym_class_definition, STATE 927),
    (sym_trait_definition, STATE 927), (sym_decorated_definition, STATE 927),
    (sym_decorator, STATE 3670), (sym_block, STATE 4433), (sym_pattern, STATE 8086),
    (sym_tuple_pattern, STATE 8101), (sym_list_pattern, STATE 8101),
    (sym_list_splat_pattern, STATE 6819), (sym_as_pattern, STATE 7969),
    (sym_expression, STATE 9883), (sym_primary_expression, STATE 7326),
    (sym_comptime_expression, STATE 7017), (sym_transfer_expression, STATE 7017),
    (sym_not_operator, STATE 7969), (sym_boolean_operator, STATE 7969),
    (sym_binary_operator, STATE 7017), (sym_unary_operator, STATE 7017),
    (sym_comparison_operator, STATE 7969), (sym_lambda, STATE 7969),
    (sym_assignment, STATE 12425), (sym_augmented_assignment, STATE 12425),
    (sym_pattern_list, STATE 8578), (sym_yield, STATE 12425), (sym_attribute, STATE 6836),
    (sym_subscript, STATE 6838), (sym_call, STATE 6845), (sym_mlir_type, STATE 7017),
    (sym_list, STATE 7017), (sym_set, STATE 7017), (sym_tuple, STATE 7017),
    (sym_dictionary, STATE 7017), (sym_struct_literal, STATE 7017),
    (sym_list_comprehension, STATE 7017), (sym_dictionary_comprehension, STATE 7017),
    (sym_set_comprehension, STATE 7017), (sym_generator_expression, STATE 7017),
    (sym_parenthesized_expression, STATE 7017), (sym_conditional_expression, STATE 7969),
    (sym_concatenated_string, STATE 7017), (sym_string, STATE 6751), (sym_await, STATE 7017),
    (aux_sym_module_repeat1, STATE 927), (aux_sym_decorated_definition_repeat1, STATE 3670),
    (sym_identifier, ACTIONS 9), (anon_sym_import, ACTIONS 11), (anon_sym_from, ACTIONS 13),
    (anon_sym_LPAREN, ACTIONS 15), (anon_sym_STAR, ACTIONS 17), (anon_sym_print, ACTIONS 19),
    (anon_sym_comptime, ACTIONS 99), (anon_sym_assert, ACTIONS 23),
    (anon_sym___comptime_assert, ACTIONS 25), (anon_sym_return, ACTIONS 27),
    (anon_sym_del, ACTIONS 29), (anon_sym_raise, ACTIONS 31), (anon_sym_pass, ACTIONS 33),
    (anon_sym_break, ACTIONS 35), (anon_sym_continue, ACTIONS 37),
    (anon_sym___extension, ACTIONS 101), (anon_sym___mlir_region, ACTIONS 103),
    (anon_sym_if, ACTIONS 105), (anon_sym_match, ACTIONS 107), (anon_sym_async, ACTIONS 109),
    (anon_sym_for, ACTIONS 111), (anon_sym_while, ACTIONS 113), (anon_sym_try, ACTIONS 115),
    (anon_sym_with, ACTIONS 117), (anon_sym_def, ACTIONS 119), (anon_sym_fn, ACTIONS 119),
    (anon_sym_LBRACK, ACTIONS 59), (anon_sym_LBRACE, ACTIONS 61), (anon_sym_global, ACTIONS 63),
    (anon_sym_nonlocal, ACTIONS 65), (anon_sym_exec, ACTIONS 67), (anon_sym_type, ACTIONS 69),
    (anon_sym_class, ACTIONS 121), (anon_sym_struct, ACTIONS 121), (anon_sym_mut, ACTIONS 73),
    (anon_sym_out, ACTIONS 73), (anon_sym_trait, ACTIONS 123), (anon_sym_AT, ACTIONS 77),
    (anon_sym_DASH, ACTIONS 79), (anon_sym_PLUS, ACTIONS 79), (anon_sym_ref, ACTIONS 81),
    (anon_sym_var, ACTIONS 81), (anon_sym_not, ACTIONS 83), (anon_sym_TILDE, ACTIONS 79),
    (anon_sym_lambda, ACTIONS 85), (anon_sym_yield, ACTIONS 87), (sym_ellipsis, ACTIONS 89),
    (anon_sym___mlir_type, ACTIONS 91), (sym_integer, ACTIONS 93), (sym_float, ACTIONS 89),
    (anon_sym_await, ACTIONS 95), (sym_true, ACTIONS 93), (sym_false, ACTIONS 93),
    (sym_none, ACTIONS 93), (sym_comment, ACTIONS 3), (sym_line_continuation, ACTIONS 3),
    (sym__dedent, ACTIONS 125), (sym_string_start, ACTIONS 97)]"

definition parse_table_912 :: "(nat \<times> nat) list" where "parse_table_912 = [
    (sym__statement, STATE 927), (sym__simple_statements, STATE 927),
    (sym_import_statement, STATE 11814), (sym_future_import_statement, STATE 11814),
    (sym_import_from_statement, STATE 11814), (sym_print_statement, STATE 11814),
    (sym_assert_statement, STATE 11814), (sym_comptime_assert_statement, STATE 11814),
    (sym_expression_statement, STATE 11814), (sym_tuple_expression, STATE 12425),
    (sym_named_expression, STATE 7969), (sym__named_expression_lhs, STATE 12752),
    (sym_return_statement, STATE 11814), (sym_delete_statement, STATE 11814),
    (sym_raise_statement, STATE 11814), (sym_pass_statement, STATE 11814),
    (sym_break_statement, STATE 11814), (sym_continue_statement, STATE 11814),
    (sym_extension_definition, STATE 927), (sym_mlir_region, STATE 927),
    (sym_comptime_statement, STATE 927), (sym_if_statement, STATE 927),
    (sym_match_statement, STATE 927), (sym_for_statement, STATE 927),
    (sym_while_statement, STATE 927), (sym_try_statement, STATE 927),
    (sym_with_statement, STATE 927), (sym_function_definition, STATE 927),
    (sym_global_statement, STATE 11814), (sym_nonlocal_statement, STATE 11814),
    (sym_exec_statement, STATE 11814), (sym_type_alias_statement, STATE 11814),
    (sym_parameterized_alias_statement, STATE 11814), (sym_class_definition, STATE 927),
    (sym_trait_definition, STATE 927), (sym_decorated_definition, STATE 927),
    (sym_decorator, STATE 3670), (sym_block, STATE 4434), (sym_pattern, STATE 8086),
    (sym_tuple_pattern, STATE 8101), (sym_list_pattern, STATE 8101),
    (sym_list_splat_pattern, STATE 6819), (sym_as_pattern, STATE 7969),
    (sym_expression, STATE 9883), (sym_primary_expression, STATE 7326),
    (sym_comptime_expression, STATE 7017), (sym_transfer_expression, STATE 7017),
    (sym_not_operator, STATE 7969), (sym_boolean_operator, STATE 7969),
    (sym_binary_operator, STATE 7017), (sym_unary_operator, STATE 7017),
    (sym_comparison_operator, STATE 7969), (sym_lambda, STATE 7969),
    (sym_assignment, STATE 12425), (sym_augmented_assignment, STATE 12425),
    (sym_pattern_list, STATE 8578), (sym_yield, STATE 12425), (sym_attribute, STATE 6836),
    (sym_subscript, STATE 6838), (sym_call, STATE 6845), (sym_mlir_type, STATE 7017),
    (sym_list, STATE 7017), (sym_set, STATE 7017), (sym_tuple, STATE 7017),
    (sym_dictionary, STATE 7017), (sym_struct_literal, STATE 7017),
    (sym_list_comprehension, STATE 7017), (sym_dictionary_comprehension, STATE 7017),
    (sym_set_comprehension, STATE 7017), (sym_generator_expression, STATE 7017),
    (sym_parenthesized_expression, STATE 7017), (sym_conditional_expression, STATE 7969),
    (sym_concatenated_string, STATE 7017), (sym_string, STATE 6751), (sym_await, STATE 7017),
    (aux_sym_module_repeat1, STATE 927), (aux_sym_decorated_definition_repeat1, STATE 3670),
    (sym_identifier, ACTIONS 9), (anon_sym_import, ACTIONS 11), (anon_sym_from, ACTIONS 13),
    (anon_sym_LPAREN, ACTIONS 15), (anon_sym_STAR, ACTIONS 17), (anon_sym_print, ACTIONS 19),
    (anon_sym_comptime, ACTIONS 99), (anon_sym_assert, ACTIONS 23),
    (anon_sym___comptime_assert, ACTIONS 25), (anon_sym_return, ACTIONS 27),
    (anon_sym_del, ACTIONS 29), (anon_sym_raise, ACTIONS 31), (anon_sym_pass, ACTIONS 33),
    (anon_sym_break, ACTIONS 35), (anon_sym_continue, ACTIONS 37),
    (anon_sym___extension, ACTIONS 101), (anon_sym___mlir_region, ACTIONS 103),
    (anon_sym_if, ACTIONS 105), (anon_sym_match, ACTIONS 107), (anon_sym_async, ACTIONS 109),
    (anon_sym_for, ACTIONS 111), (anon_sym_while, ACTIONS 113), (anon_sym_try, ACTIONS 115),
    (anon_sym_with, ACTIONS 117), (anon_sym_def, ACTIONS 119), (anon_sym_fn, ACTIONS 119),
    (anon_sym_LBRACK, ACTIONS 59), (anon_sym_LBRACE, ACTIONS 61), (anon_sym_global, ACTIONS 63),
    (anon_sym_nonlocal, ACTIONS 65), (anon_sym_exec, ACTIONS 67), (anon_sym_type, ACTIONS 69),
    (anon_sym_class, ACTIONS 121), (anon_sym_struct, ACTIONS 121), (anon_sym_mut, ACTIONS 73),
    (anon_sym_out, ACTIONS 73), (anon_sym_trait, ACTIONS 123), (anon_sym_AT, ACTIONS 77),
    (anon_sym_DASH, ACTIONS 79), (anon_sym_PLUS, ACTIONS 79), (anon_sym_ref, ACTIONS 81),
    (anon_sym_var, ACTIONS 81), (anon_sym_not, ACTIONS 83), (anon_sym_TILDE, ACTIONS 79),
    (anon_sym_lambda, ACTIONS 85), (anon_sym_yield, ACTIONS 87), (sym_ellipsis, ACTIONS 89),
    (anon_sym___mlir_type, ACTIONS 91), (sym_integer, ACTIONS 93), (sym_float, ACTIONS 89),
    (anon_sym_await, ACTIONS 95), (sym_true, ACTIONS 93), (sym_false, ACTIONS 93),
    (sym_none, ACTIONS 93), (sym_comment, ACTIONS 3), (sym_line_continuation, ACTIONS 3),
    (sym__dedent, ACTIONS 125), (sym_string_start, ACTIONS 97)]"

definition parse_table_913 :: "(nat \<times> nat) list" where "parse_table_913 = [
    (sym__statement, STATE 927), (sym__simple_statements, STATE 927),
    (sym_import_statement, STATE 11814), (sym_future_import_statement, STATE 11814),
    (sym_import_from_statement, STATE 11814), (sym_print_statement, STATE 11814),
    (sym_assert_statement, STATE 11814), (sym_comptime_assert_statement, STATE 11814),
    (sym_expression_statement, STATE 11814), (sym_tuple_expression, STATE 12425),
    (sym_named_expression, STATE 7969), (sym__named_expression_lhs, STATE 12752),
    (sym_return_statement, STATE 11814), (sym_delete_statement, STATE 11814),
    (sym_raise_statement, STATE 11814), (sym_pass_statement, STATE 11814),
    (sym_break_statement, STATE 11814), (sym_continue_statement, STATE 11814),
    (sym_extension_definition, STATE 927), (sym_mlir_region, STATE 927),
    (sym_comptime_statement, STATE 927), (sym_if_statement, STATE 927),
    (sym_match_statement, STATE 927), (sym_for_statement, STATE 927),
    (sym_while_statement, STATE 927), (sym_try_statement, STATE 927),
    (sym_with_statement, STATE 927), (sym_function_definition, STATE 927),
    (sym_global_statement, STATE 11814), (sym_nonlocal_statement, STATE 11814),
    (sym_exec_statement, STATE 11814), (sym_type_alias_statement, STATE 11814),
    (sym_parameterized_alias_statement, STATE 11814), (sym_class_definition, STATE 927),
    (sym_trait_definition, STATE 927), (sym_decorated_definition, STATE 927),
    (sym_decorator, STATE 3670), (sym_block, STATE 4435), (sym_pattern, STATE 8086),
    (sym_tuple_pattern, STATE 8101), (sym_list_pattern, STATE 8101),
    (sym_list_splat_pattern, STATE 6819), (sym_as_pattern, STATE 7969),
    (sym_expression, STATE 9883), (sym_primary_expression, STATE 7326),
    (sym_comptime_expression, STATE 7017), (sym_transfer_expression, STATE 7017),
    (sym_not_operator, STATE 7969), (sym_boolean_operator, STATE 7969),
    (sym_binary_operator, STATE 7017), (sym_unary_operator, STATE 7017),
    (sym_comparison_operator, STATE 7969), (sym_lambda, STATE 7969),
    (sym_assignment, STATE 12425), (sym_augmented_assignment, STATE 12425),
    (sym_pattern_list, STATE 8578), (sym_yield, STATE 12425), (sym_attribute, STATE 6836),
    (sym_subscript, STATE 6838), (sym_call, STATE 6845), (sym_mlir_type, STATE 7017),
    (sym_list, STATE 7017), (sym_set, STATE 7017), (sym_tuple, STATE 7017),
    (sym_dictionary, STATE 7017), (sym_struct_literal, STATE 7017),
    (sym_list_comprehension, STATE 7017), (sym_dictionary_comprehension, STATE 7017),
    (sym_set_comprehension, STATE 7017), (sym_generator_expression, STATE 7017),
    (sym_parenthesized_expression, STATE 7017), (sym_conditional_expression, STATE 7969),
    (sym_concatenated_string, STATE 7017), (sym_string, STATE 6751), (sym_await, STATE 7017),
    (aux_sym_module_repeat1, STATE 927), (aux_sym_decorated_definition_repeat1, STATE 3670),
    (sym_identifier, ACTIONS 9), (anon_sym_import, ACTIONS 11), (anon_sym_from, ACTIONS 13),
    (anon_sym_LPAREN, ACTIONS 15), (anon_sym_STAR, ACTIONS 17), (anon_sym_print, ACTIONS 19),
    (anon_sym_comptime, ACTIONS 99), (anon_sym_assert, ACTIONS 23),
    (anon_sym___comptime_assert, ACTIONS 25), (anon_sym_return, ACTIONS 27),
    (anon_sym_del, ACTIONS 29), (anon_sym_raise, ACTIONS 31), (anon_sym_pass, ACTIONS 33),
    (anon_sym_break, ACTIONS 35), (anon_sym_continue, ACTIONS 37),
    (anon_sym___extension, ACTIONS 101), (anon_sym___mlir_region, ACTIONS 103),
    (anon_sym_if, ACTIONS 105), (anon_sym_match, ACTIONS 107), (anon_sym_async, ACTIONS 109),
    (anon_sym_for, ACTIONS 111), (anon_sym_while, ACTIONS 113), (anon_sym_try, ACTIONS 115),
    (anon_sym_with, ACTIONS 117), (anon_sym_def, ACTIONS 119), (anon_sym_fn, ACTIONS 119),
    (anon_sym_LBRACK, ACTIONS 59), (anon_sym_LBRACE, ACTIONS 61), (anon_sym_global, ACTIONS 63),
    (anon_sym_nonlocal, ACTIONS 65), (anon_sym_exec, ACTIONS 67), (anon_sym_type, ACTIONS 69),
    (anon_sym_class, ACTIONS 121), (anon_sym_struct, ACTIONS 121), (anon_sym_mut, ACTIONS 73),
    (anon_sym_out, ACTIONS 73), (anon_sym_trait, ACTIONS 123), (anon_sym_AT, ACTIONS 77),
    (anon_sym_DASH, ACTIONS 79), (anon_sym_PLUS, ACTIONS 79), (anon_sym_ref, ACTIONS 81),
    (anon_sym_var, ACTIONS 81), (anon_sym_not, ACTIONS 83), (anon_sym_TILDE, ACTIONS 79),
    (anon_sym_lambda, ACTIONS 85), (anon_sym_yield, ACTIONS 87), (sym_ellipsis, ACTIONS 89),
    (anon_sym___mlir_type, ACTIONS 91), (sym_integer, ACTIONS 93), (sym_float, ACTIONS 89),
    (anon_sym_await, ACTIONS 95), (sym_true, ACTIONS 93), (sym_false, ACTIONS 93),
    (sym_none, ACTIONS 93), (sym_comment, ACTIONS 3), (sym_line_continuation, ACTIONS 3),
    (sym__dedent, ACTIONS 125), (sym_string_start, ACTIONS 97)]"

definition parse_table_914 :: "(nat \<times> nat) list" where "parse_table_914 = [
    (sym__statement, STATE 927), (sym__simple_statements, STATE 927),
    (sym_import_statement, STATE 11814), (sym_future_import_statement, STATE 11814),
    (sym_import_from_statement, STATE 11814), (sym_print_statement, STATE 11814),
    (sym_assert_statement, STATE 11814), (sym_comptime_assert_statement, STATE 11814),
    (sym_expression_statement, STATE 11814), (sym_tuple_expression, STATE 12425),
    (sym_named_expression, STATE 7969), (sym__named_expression_lhs, STATE 12752),
    (sym_return_statement, STATE 11814), (sym_delete_statement, STATE 11814),
    (sym_raise_statement, STATE 11814), (sym_pass_statement, STATE 11814),
    (sym_break_statement, STATE 11814), (sym_continue_statement, STATE 11814),
    (sym_extension_definition, STATE 927), (sym_mlir_region, STATE 927),
    (sym_comptime_statement, STATE 927), (sym_if_statement, STATE 927),
    (sym_match_statement, STATE 927), (sym_for_statement, STATE 927),
    (sym_while_statement, STATE 927), (sym_try_statement, STATE 927),
    (sym_with_statement, STATE 927), (sym_function_definition, STATE 927),
    (sym_global_statement, STATE 11814), (sym_nonlocal_statement, STATE 11814),
    (sym_exec_statement, STATE 11814), (sym_type_alias_statement, STATE 11814),
    (sym_parameterized_alias_statement, STATE 11814), (sym_class_definition, STATE 927),
    (sym_trait_definition, STATE 927), (sym_decorated_definition, STATE 927),
    (sym_decorator, STATE 3670), (sym_block, STATE 4436), (sym_pattern, STATE 8086),
    (sym_tuple_pattern, STATE 8101), (sym_list_pattern, STATE 8101),
    (sym_list_splat_pattern, STATE 6819), (sym_as_pattern, STATE 7969),
    (sym_expression, STATE 9883), (sym_primary_expression, STATE 7326),
    (sym_comptime_expression, STATE 7017), (sym_transfer_expression, STATE 7017),
    (sym_not_operator, STATE 7969), (sym_boolean_operator, STATE 7969),
    (sym_binary_operator, STATE 7017), (sym_unary_operator, STATE 7017),
    (sym_comparison_operator, STATE 7969), (sym_lambda, STATE 7969),
    (sym_assignment, STATE 12425), (sym_augmented_assignment, STATE 12425),
    (sym_pattern_list, STATE 8578), (sym_yield, STATE 12425), (sym_attribute, STATE 6836),
    (sym_subscript, STATE 6838), (sym_call, STATE 6845), (sym_mlir_type, STATE 7017),
    (sym_list, STATE 7017), (sym_set, STATE 7017), (sym_tuple, STATE 7017),
    (sym_dictionary, STATE 7017), (sym_struct_literal, STATE 7017),
    (sym_list_comprehension, STATE 7017), (sym_dictionary_comprehension, STATE 7017),
    (sym_set_comprehension, STATE 7017), (sym_generator_expression, STATE 7017),
    (sym_parenthesized_expression, STATE 7017), (sym_conditional_expression, STATE 7969),
    (sym_concatenated_string, STATE 7017), (sym_string, STATE 6751), (sym_await, STATE 7017),
    (aux_sym_module_repeat1, STATE 927), (aux_sym_decorated_definition_repeat1, STATE 3670),
    (sym_identifier, ACTIONS 9), (anon_sym_import, ACTIONS 11), (anon_sym_from, ACTIONS 13),
    (anon_sym_LPAREN, ACTIONS 15), (anon_sym_STAR, ACTIONS 17), (anon_sym_print, ACTIONS 19),
    (anon_sym_comptime, ACTIONS 99), (anon_sym_assert, ACTIONS 23),
    (anon_sym___comptime_assert, ACTIONS 25), (anon_sym_return, ACTIONS 27),
    (anon_sym_del, ACTIONS 29), (anon_sym_raise, ACTIONS 31), (anon_sym_pass, ACTIONS 33),
    (anon_sym_break, ACTIONS 35), (anon_sym_continue, ACTIONS 37),
    (anon_sym___extension, ACTIONS 101), (anon_sym___mlir_region, ACTIONS 103),
    (anon_sym_if, ACTIONS 105), (anon_sym_match, ACTIONS 107), (anon_sym_async, ACTIONS 109),
    (anon_sym_for, ACTIONS 111), (anon_sym_while, ACTIONS 113), (anon_sym_try, ACTIONS 115),
    (anon_sym_with, ACTIONS 117), (anon_sym_def, ACTIONS 119), (anon_sym_fn, ACTIONS 119),
    (anon_sym_LBRACK, ACTIONS 59), (anon_sym_LBRACE, ACTIONS 61), (anon_sym_global, ACTIONS 63),
    (anon_sym_nonlocal, ACTIONS 65), (anon_sym_exec, ACTIONS 67), (anon_sym_type, ACTIONS 69),
    (anon_sym_class, ACTIONS 121), (anon_sym_struct, ACTIONS 121), (anon_sym_mut, ACTIONS 73),
    (anon_sym_out, ACTIONS 73), (anon_sym_trait, ACTIONS 123), (anon_sym_AT, ACTIONS 77),
    (anon_sym_DASH, ACTIONS 79), (anon_sym_PLUS, ACTIONS 79), (anon_sym_ref, ACTIONS 81),
    (anon_sym_var, ACTIONS 81), (anon_sym_not, ACTIONS 83), (anon_sym_TILDE, ACTIONS 79),
    (anon_sym_lambda, ACTIONS 85), (anon_sym_yield, ACTIONS 87), (sym_ellipsis, ACTIONS 89),
    (anon_sym___mlir_type, ACTIONS 91), (sym_integer, ACTIONS 93), (sym_float, ACTIONS 89),
    (anon_sym_await, ACTIONS 95), (sym_true, ACTIONS 93), (sym_false, ACTIONS 93),
    (sym_none, ACTIONS 93), (sym_comment, ACTIONS 3), (sym_line_continuation, ACTIONS 3),
    (sym__dedent, ACTIONS 125), (sym_string_start, ACTIONS 97)]"

definition parse_table_915 :: "(nat \<times> nat) list" where "parse_table_915 = [
    (sym__statement, STATE 927), (sym__simple_statements, STATE 927),
    (sym_import_statement, STATE 11814), (sym_future_import_statement, STATE 11814),
    (sym_import_from_statement, STATE 11814), (sym_print_statement, STATE 11814),
    (sym_assert_statement, STATE 11814), (sym_comptime_assert_statement, STATE 11814),
    (sym_expression_statement, STATE 11814), (sym_tuple_expression, STATE 12425),
    (sym_named_expression, STATE 7969), (sym__named_expression_lhs, STATE 12752),
    (sym_return_statement, STATE 11814), (sym_delete_statement, STATE 11814),
    (sym_raise_statement, STATE 11814), (sym_pass_statement, STATE 11814),
    (sym_break_statement, STATE 11814), (sym_continue_statement, STATE 11814),
    (sym_extension_definition, STATE 927), (sym_mlir_region, STATE 927),
    (sym_comptime_statement, STATE 927), (sym_if_statement, STATE 927),
    (sym_match_statement, STATE 927), (sym_for_statement, STATE 927),
    (sym_while_statement, STATE 927), (sym_try_statement, STATE 927),
    (sym_with_statement, STATE 927), (sym_function_definition, STATE 927),
    (sym_global_statement, STATE 11814), (sym_nonlocal_statement, STATE 11814),
    (sym_exec_statement, STATE 11814), (sym_type_alias_statement, STATE 11814),
    (sym_parameterized_alias_statement, STATE 11814), (sym_class_definition, STATE 927),
    (sym_trait_definition, STATE 927), (sym_decorated_definition, STATE 927),
    (sym_decorator, STATE 3670), (sym_block, STATE 4437), (sym_pattern, STATE 8086),
    (sym_tuple_pattern, STATE 8101), (sym_list_pattern, STATE 8101),
    (sym_list_splat_pattern, STATE 6819), (sym_as_pattern, STATE 7969),
    (sym_expression, STATE 9883), (sym_primary_expression, STATE 7326),
    (sym_comptime_expression, STATE 7017), (sym_transfer_expression, STATE 7017),
    (sym_not_operator, STATE 7969), (sym_boolean_operator, STATE 7969),
    (sym_binary_operator, STATE 7017), (sym_unary_operator, STATE 7017),
    (sym_comparison_operator, STATE 7969), (sym_lambda, STATE 7969),
    (sym_assignment, STATE 12425), (sym_augmented_assignment, STATE 12425),
    (sym_pattern_list, STATE 8578), (sym_yield, STATE 12425), (sym_attribute, STATE 6836),
    (sym_subscript, STATE 6838), (sym_call, STATE 6845), (sym_mlir_type, STATE 7017),
    (sym_list, STATE 7017), (sym_set, STATE 7017), (sym_tuple, STATE 7017),
    (sym_dictionary, STATE 7017), (sym_struct_literal, STATE 7017),
    (sym_list_comprehension, STATE 7017), (sym_dictionary_comprehension, STATE 7017),
    (sym_set_comprehension, STATE 7017), (sym_generator_expression, STATE 7017),
    (sym_parenthesized_expression, STATE 7017), (sym_conditional_expression, STATE 7969),
    (sym_concatenated_string, STATE 7017), (sym_string, STATE 6751), (sym_await, STATE 7017),
    (aux_sym_module_repeat1, STATE 927), (aux_sym_decorated_definition_repeat1, STATE 3670),
    (sym_identifier, ACTIONS 9), (anon_sym_import, ACTIONS 11), (anon_sym_from, ACTIONS 13),
    (anon_sym_LPAREN, ACTIONS 15), (anon_sym_STAR, ACTIONS 17), (anon_sym_print, ACTIONS 19),
    (anon_sym_comptime, ACTIONS 99), (anon_sym_assert, ACTIONS 23),
    (anon_sym___comptime_assert, ACTIONS 25), (anon_sym_return, ACTIONS 27),
    (anon_sym_del, ACTIONS 29), (anon_sym_raise, ACTIONS 31), (anon_sym_pass, ACTIONS 33),
    (anon_sym_break, ACTIONS 35), (anon_sym_continue, ACTIONS 37),
    (anon_sym___extension, ACTIONS 101), (anon_sym___mlir_region, ACTIONS 103),
    (anon_sym_if, ACTIONS 105), (anon_sym_match, ACTIONS 107), (anon_sym_async, ACTIONS 109),
    (anon_sym_for, ACTIONS 111), (anon_sym_while, ACTIONS 113), (anon_sym_try, ACTIONS 115),
    (anon_sym_with, ACTIONS 117), (anon_sym_def, ACTIONS 119), (anon_sym_fn, ACTIONS 119),
    (anon_sym_LBRACK, ACTIONS 59), (anon_sym_LBRACE, ACTIONS 61), (anon_sym_global, ACTIONS 63),
    (anon_sym_nonlocal, ACTIONS 65), (anon_sym_exec, ACTIONS 67), (anon_sym_type, ACTIONS 69),
    (anon_sym_class, ACTIONS 121), (anon_sym_struct, ACTIONS 121), (anon_sym_mut, ACTIONS 73),
    (anon_sym_out, ACTIONS 73), (anon_sym_trait, ACTIONS 123), (anon_sym_AT, ACTIONS 77),
    (anon_sym_DASH, ACTIONS 79), (anon_sym_PLUS, ACTIONS 79), (anon_sym_ref, ACTIONS 81),
    (anon_sym_var, ACTIONS 81), (anon_sym_not, ACTIONS 83), (anon_sym_TILDE, ACTIONS 79),
    (anon_sym_lambda, ACTIONS 85), (anon_sym_yield, ACTIONS 87), (sym_ellipsis, ACTIONS 89),
    (anon_sym___mlir_type, ACTIONS 91), (sym_integer, ACTIONS 93), (sym_float, ACTIONS 89),
    (anon_sym_await, ACTIONS 95), (sym_true, ACTIONS 93), (sym_false, ACTIONS 93),
    (sym_none, ACTIONS 93), (sym_comment, ACTIONS 3), (sym_line_continuation, ACTIONS 3),
    (sym__dedent, ACTIONS 125), (sym_string_start, ACTIONS 97)]"

definition parse_table_916 :: "(nat \<times> nat) list" where "parse_table_916 = [
    (sym__statement, STATE 927), (sym__simple_statements, STATE 927),
    (sym_import_statement, STATE 11814), (sym_future_import_statement, STATE 11814),
    (sym_import_from_statement, STATE 11814), (sym_print_statement, STATE 11814),
    (sym_assert_statement, STATE 11814), (sym_comptime_assert_statement, STATE 11814),
    (sym_expression_statement, STATE 11814), (sym_tuple_expression, STATE 12425),
    (sym_named_expression, STATE 7969), (sym__named_expression_lhs, STATE 12752),
    (sym_return_statement, STATE 11814), (sym_delete_statement, STATE 11814),
    (sym_raise_statement, STATE 11814), (sym_pass_statement, STATE 11814),
    (sym_break_statement, STATE 11814), (sym_continue_statement, STATE 11814),
    (sym_extension_definition, STATE 927), (sym_mlir_region, STATE 927),
    (sym_comptime_statement, STATE 927), (sym_if_statement, STATE 927),
    (sym_match_statement, STATE 927), (sym_for_statement, STATE 927),
    (sym_while_statement, STATE 927), (sym_try_statement, STATE 927),
    (sym_with_statement, STATE 927), (sym_function_definition, STATE 927),
    (sym_global_statement, STATE 11814), (sym_nonlocal_statement, STATE 11814),
    (sym_exec_statement, STATE 11814), (sym_type_alias_statement, STATE 11814),
    (sym_parameterized_alias_statement, STATE 11814), (sym_class_definition, STATE 927),
    (sym_trait_definition, STATE 927), (sym_decorated_definition, STATE 927),
    (sym_decorator, STATE 3670), (sym_block, STATE 4438), (sym_pattern, STATE 8086),
    (sym_tuple_pattern, STATE 8101), (sym_list_pattern, STATE 8101),
    (sym_list_splat_pattern, STATE 6819), (sym_as_pattern, STATE 7969),
    (sym_expression, STATE 9883), (sym_primary_expression, STATE 7326),
    (sym_comptime_expression, STATE 7017), (sym_transfer_expression, STATE 7017),
    (sym_not_operator, STATE 7969), (sym_boolean_operator, STATE 7969),
    (sym_binary_operator, STATE 7017), (sym_unary_operator, STATE 7017),
    (sym_comparison_operator, STATE 7969), (sym_lambda, STATE 7969),
    (sym_assignment, STATE 12425), (sym_augmented_assignment, STATE 12425),
    (sym_pattern_list, STATE 8578), (sym_yield, STATE 12425), (sym_attribute, STATE 6836),
    (sym_subscript, STATE 6838), (sym_call, STATE 6845), (sym_mlir_type, STATE 7017),
    (sym_list, STATE 7017), (sym_set, STATE 7017), (sym_tuple, STATE 7017),
    (sym_dictionary, STATE 7017), (sym_struct_literal, STATE 7017),
    (sym_list_comprehension, STATE 7017), (sym_dictionary_comprehension, STATE 7017),
    (sym_set_comprehension, STATE 7017), (sym_generator_expression, STATE 7017),
    (sym_parenthesized_expression, STATE 7017), (sym_conditional_expression, STATE 7969),
    (sym_concatenated_string, STATE 7017), (sym_string, STATE 6751), (sym_await, STATE 7017),
    (aux_sym_module_repeat1, STATE 927), (aux_sym_decorated_definition_repeat1, STATE 3670),
    (sym_identifier, ACTIONS 9), (anon_sym_import, ACTIONS 11), (anon_sym_from, ACTIONS 13),
    (anon_sym_LPAREN, ACTIONS 15), (anon_sym_STAR, ACTIONS 17), (anon_sym_print, ACTIONS 19),
    (anon_sym_comptime, ACTIONS 99), (anon_sym_assert, ACTIONS 23),
    (anon_sym___comptime_assert, ACTIONS 25), (anon_sym_return, ACTIONS 27),
    (anon_sym_del, ACTIONS 29), (anon_sym_raise, ACTIONS 31), (anon_sym_pass, ACTIONS 33),
    (anon_sym_break, ACTIONS 35), (anon_sym_continue, ACTIONS 37),
    (anon_sym___extension, ACTIONS 101), (anon_sym___mlir_region, ACTIONS 103),
    (anon_sym_if, ACTIONS 105), (anon_sym_match, ACTIONS 107), (anon_sym_async, ACTIONS 109),
    (anon_sym_for, ACTIONS 111), (anon_sym_while, ACTIONS 113), (anon_sym_try, ACTIONS 115),
    (anon_sym_with, ACTIONS 117), (anon_sym_def, ACTIONS 119), (anon_sym_fn, ACTIONS 119),
    (anon_sym_LBRACK, ACTIONS 59), (anon_sym_LBRACE, ACTIONS 61), (anon_sym_global, ACTIONS 63),
    (anon_sym_nonlocal, ACTIONS 65), (anon_sym_exec, ACTIONS 67), (anon_sym_type, ACTIONS 69),
    (anon_sym_class, ACTIONS 121), (anon_sym_struct, ACTIONS 121), (anon_sym_mut, ACTIONS 73),
    (anon_sym_out, ACTIONS 73), (anon_sym_trait, ACTIONS 123), (anon_sym_AT, ACTIONS 77),
    (anon_sym_DASH, ACTIONS 79), (anon_sym_PLUS, ACTIONS 79), (anon_sym_ref, ACTIONS 81),
    (anon_sym_var, ACTIONS 81), (anon_sym_not, ACTIONS 83), (anon_sym_TILDE, ACTIONS 79),
    (anon_sym_lambda, ACTIONS 85), (anon_sym_yield, ACTIONS 87), (sym_ellipsis, ACTIONS 89),
    (anon_sym___mlir_type, ACTIONS 91), (sym_integer, ACTIONS 93), (sym_float, ACTIONS 89),
    (anon_sym_await, ACTIONS 95), (sym_true, ACTIONS 93), (sym_false, ACTIONS 93),
    (sym_none, ACTIONS 93), (sym_comment, ACTIONS 3), (sym_line_continuation, ACTIONS 3),
    (sym__dedent, ACTIONS 125), (sym_string_start, ACTIONS 97)]"

definition parse_table_917 :: "(nat \<times> nat) list" where "parse_table_917 = [
    (sym__statement, STATE 927), (sym__simple_statements, STATE 927),
    (sym_import_statement, STATE 11814), (sym_future_import_statement, STATE 11814),
    (sym_import_from_statement, STATE 11814), (sym_print_statement, STATE 11814),
    (sym_assert_statement, STATE 11814), (sym_comptime_assert_statement, STATE 11814),
    (sym_expression_statement, STATE 11814), (sym_tuple_expression, STATE 12425),
    (sym_named_expression, STATE 7969), (sym__named_expression_lhs, STATE 12752),
    (sym_return_statement, STATE 11814), (sym_delete_statement, STATE 11814),
    (sym_raise_statement, STATE 11814), (sym_pass_statement, STATE 11814),
    (sym_break_statement, STATE 11814), (sym_continue_statement, STATE 11814),
    (sym_extension_definition, STATE 927), (sym_mlir_region, STATE 927),
    (sym_comptime_statement, STATE 927), (sym_if_statement, STATE 927),
    (sym_match_statement, STATE 927), (sym_for_statement, STATE 927),
    (sym_while_statement, STATE 927), (sym_try_statement, STATE 927),
    (sym_with_statement, STATE 927), (sym_function_definition, STATE 927),
    (sym_global_statement, STATE 11814), (sym_nonlocal_statement, STATE 11814),
    (sym_exec_statement, STATE 11814), (sym_type_alias_statement, STATE 11814),
    (sym_parameterized_alias_statement, STATE 11814), (sym_class_definition, STATE 927),
    (sym_trait_definition, STATE 927), (sym_decorated_definition, STATE 927),
    (sym_decorator, STATE 3670), (sym_block, STATE 4441), (sym_pattern, STATE 8086),
    (sym_tuple_pattern, STATE 8101), (sym_list_pattern, STATE 8101),
    (sym_list_splat_pattern, STATE 6819), (sym_as_pattern, STATE 7969),
    (sym_expression, STATE 9883), (sym_primary_expression, STATE 7326),
    (sym_comptime_expression, STATE 7017), (sym_transfer_expression, STATE 7017),
    (sym_not_operator, STATE 7969), (sym_boolean_operator, STATE 7969),
    (sym_binary_operator, STATE 7017), (sym_unary_operator, STATE 7017),
    (sym_comparison_operator, STATE 7969), (sym_lambda, STATE 7969),
    (sym_assignment, STATE 12425), (sym_augmented_assignment, STATE 12425),
    (sym_pattern_list, STATE 8578), (sym_yield, STATE 12425), (sym_attribute, STATE 6836),
    (sym_subscript, STATE 6838), (sym_call, STATE 6845), (sym_mlir_type, STATE 7017),
    (sym_list, STATE 7017), (sym_set, STATE 7017), (sym_tuple, STATE 7017),
    (sym_dictionary, STATE 7017), (sym_struct_literal, STATE 7017),
    (sym_list_comprehension, STATE 7017), (sym_dictionary_comprehension, STATE 7017),
    (sym_set_comprehension, STATE 7017), (sym_generator_expression, STATE 7017),
    (sym_parenthesized_expression, STATE 7017), (sym_conditional_expression, STATE 7969),
    (sym_concatenated_string, STATE 7017), (sym_string, STATE 6751), (sym_await, STATE 7017),
    (aux_sym_module_repeat1, STATE 927), (aux_sym_decorated_definition_repeat1, STATE 3670),
    (sym_identifier, ACTIONS 9), (anon_sym_import, ACTIONS 11), (anon_sym_from, ACTIONS 13),
    (anon_sym_LPAREN, ACTIONS 15), (anon_sym_STAR, ACTIONS 17), (anon_sym_print, ACTIONS 19),
    (anon_sym_comptime, ACTIONS 99), (anon_sym_assert, ACTIONS 23),
    (anon_sym___comptime_assert, ACTIONS 25), (anon_sym_return, ACTIONS 27),
    (anon_sym_del, ACTIONS 29), (anon_sym_raise, ACTIONS 31), (anon_sym_pass, ACTIONS 33),
    (anon_sym_break, ACTIONS 35), (anon_sym_continue, ACTIONS 37),
    (anon_sym___extension, ACTIONS 101), (anon_sym___mlir_region, ACTIONS 103),
    (anon_sym_if, ACTIONS 105), (anon_sym_match, ACTIONS 107), (anon_sym_async, ACTIONS 109),
    (anon_sym_for, ACTIONS 111), (anon_sym_while, ACTIONS 113), (anon_sym_try, ACTIONS 115),
    (anon_sym_with, ACTIONS 117), (anon_sym_def, ACTIONS 119), (anon_sym_fn, ACTIONS 119),
    (anon_sym_LBRACK, ACTIONS 59), (anon_sym_LBRACE, ACTIONS 61), (anon_sym_global, ACTIONS 63),
    (anon_sym_nonlocal, ACTIONS 65), (anon_sym_exec, ACTIONS 67), (anon_sym_type, ACTIONS 69),
    (anon_sym_class, ACTIONS 121), (anon_sym_struct, ACTIONS 121), (anon_sym_mut, ACTIONS 73),
    (anon_sym_out, ACTIONS 73), (anon_sym_trait, ACTIONS 123), (anon_sym_AT, ACTIONS 77),
    (anon_sym_DASH, ACTIONS 79), (anon_sym_PLUS, ACTIONS 79), (anon_sym_ref, ACTIONS 81),
    (anon_sym_var, ACTIONS 81), (anon_sym_not, ACTIONS 83), (anon_sym_TILDE, ACTIONS 79),
    (anon_sym_lambda, ACTIONS 85), (anon_sym_yield, ACTIONS 87), (sym_ellipsis, ACTIONS 89),
    (anon_sym___mlir_type, ACTIONS 91), (sym_integer, ACTIONS 93), (sym_float, ACTIONS 89),
    (anon_sym_await, ACTIONS 95), (sym_true, ACTIONS 93), (sym_false, ACTIONS 93),
    (sym_none, ACTIONS 93), (sym_comment, ACTIONS 3), (sym_line_continuation, ACTIONS 3),
    (sym__dedent, ACTIONS 125), (sym_string_start, ACTIONS 97)]"

definition parse_table_918 :: "(nat \<times> nat) list" where "parse_table_918 = [
    (sym__statement, STATE 927), (sym__simple_statements, STATE 927),
    (sym_import_statement, STATE 11814), (sym_future_import_statement, STATE 11814),
    (sym_import_from_statement, STATE 11814), (sym_print_statement, STATE 11814),
    (sym_assert_statement, STATE 11814), (sym_comptime_assert_statement, STATE 11814),
    (sym_expression_statement, STATE 11814), (sym_tuple_expression, STATE 12425),
    (sym_named_expression, STATE 7969), (sym__named_expression_lhs, STATE 12752),
    (sym_return_statement, STATE 11814), (sym_delete_statement, STATE 11814),
    (sym_raise_statement, STATE 11814), (sym_pass_statement, STATE 11814),
    (sym_break_statement, STATE 11814), (sym_continue_statement, STATE 11814),
    (sym_extension_definition, STATE 927), (sym_mlir_region, STATE 927),
    (sym_comptime_statement, STATE 927), (sym_if_statement, STATE 927),
    (sym_match_statement, STATE 927), (sym_for_statement, STATE 927),
    (sym_while_statement, STATE 927), (sym_try_statement, STATE 927),
    (sym_with_statement, STATE 927), (sym_function_definition, STATE 927),
    (sym_global_statement, STATE 11814), (sym_nonlocal_statement, STATE 11814),
    (sym_exec_statement, STATE 11814), (sym_type_alias_statement, STATE 11814),
    (sym_parameterized_alias_statement, STATE 11814), (sym_class_definition, STATE 927),
    (sym_trait_definition, STATE 927), (sym_decorated_definition, STATE 927),
    (sym_decorator, STATE 3670), (sym_block, STATE 4442), (sym_pattern, STATE 8086),
    (sym_tuple_pattern, STATE 8101), (sym_list_pattern, STATE 8101),
    (sym_list_splat_pattern, STATE 6819), (sym_as_pattern, STATE 7969),
    (sym_expression, STATE 9883), (sym_primary_expression, STATE 7326),
    (sym_comptime_expression, STATE 7017), (sym_transfer_expression, STATE 7017),
    (sym_not_operator, STATE 7969), (sym_boolean_operator, STATE 7969),
    (sym_binary_operator, STATE 7017), (sym_unary_operator, STATE 7017),
    (sym_comparison_operator, STATE 7969), (sym_lambda, STATE 7969),
    (sym_assignment, STATE 12425), (sym_augmented_assignment, STATE 12425),
    (sym_pattern_list, STATE 8578), (sym_yield, STATE 12425), (sym_attribute, STATE 6836),
    (sym_subscript, STATE 6838), (sym_call, STATE 6845), (sym_mlir_type, STATE 7017),
    (sym_list, STATE 7017), (sym_set, STATE 7017), (sym_tuple, STATE 7017),
    (sym_dictionary, STATE 7017), (sym_struct_literal, STATE 7017),
    (sym_list_comprehension, STATE 7017), (sym_dictionary_comprehension, STATE 7017),
    (sym_set_comprehension, STATE 7017), (sym_generator_expression, STATE 7017),
    (sym_parenthesized_expression, STATE 7017), (sym_conditional_expression, STATE 7969),
    (sym_concatenated_string, STATE 7017), (sym_string, STATE 6751), (sym_await, STATE 7017),
    (aux_sym_module_repeat1, STATE 927), (aux_sym_decorated_definition_repeat1, STATE 3670),
    (sym_identifier, ACTIONS 9), (anon_sym_import, ACTIONS 11), (anon_sym_from, ACTIONS 13),
    (anon_sym_LPAREN, ACTIONS 15), (anon_sym_STAR, ACTIONS 17), (anon_sym_print, ACTIONS 19),
    (anon_sym_comptime, ACTIONS 99), (anon_sym_assert, ACTIONS 23),
    (anon_sym___comptime_assert, ACTIONS 25), (anon_sym_return, ACTIONS 27),
    (anon_sym_del, ACTIONS 29), (anon_sym_raise, ACTIONS 31), (anon_sym_pass, ACTIONS 33),
    (anon_sym_break, ACTIONS 35), (anon_sym_continue, ACTIONS 37),
    (anon_sym___extension, ACTIONS 101), (anon_sym___mlir_region, ACTIONS 103),
    (anon_sym_if, ACTIONS 105), (anon_sym_match, ACTIONS 107), (anon_sym_async, ACTIONS 109),
    (anon_sym_for, ACTIONS 111), (anon_sym_while, ACTIONS 113), (anon_sym_try, ACTIONS 115),
    (anon_sym_with, ACTIONS 117), (anon_sym_def, ACTIONS 119), (anon_sym_fn, ACTIONS 119),
    (anon_sym_LBRACK, ACTIONS 59), (anon_sym_LBRACE, ACTIONS 61), (anon_sym_global, ACTIONS 63),
    (anon_sym_nonlocal, ACTIONS 65), (anon_sym_exec, ACTIONS 67), (anon_sym_type, ACTIONS 69),
    (anon_sym_class, ACTIONS 121), (anon_sym_struct, ACTIONS 121), (anon_sym_mut, ACTIONS 73),
    (anon_sym_out, ACTIONS 73), (anon_sym_trait, ACTIONS 123), (anon_sym_AT, ACTIONS 77),
    (anon_sym_DASH, ACTIONS 79), (anon_sym_PLUS, ACTIONS 79), (anon_sym_ref, ACTIONS 81),
    (anon_sym_var, ACTIONS 81), (anon_sym_not, ACTIONS 83), (anon_sym_TILDE, ACTIONS 79),
    (anon_sym_lambda, ACTIONS 85), (anon_sym_yield, ACTIONS 87), (sym_ellipsis, ACTIONS 89),
    (anon_sym___mlir_type, ACTIONS 91), (sym_integer, ACTIONS 93), (sym_float, ACTIONS 89),
    (anon_sym_await, ACTIONS 95), (sym_true, ACTIONS 93), (sym_false, ACTIONS 93),
    (sym_none, ACTIONS 93), (sym_comment, ACTIONS 3), (sym_line_continuation, ACTIONS 3),
    (sym__dedent, ACTIONS 125), (sym_string_start, ACTIONS 97)]"

definition parse_table_919 :: "(nat \<times> nat) list" where "parse_table_919 = [
    (sym__statement, STATE 925), (sym__simple_statements, STATE 925),
    (sym_import_statement, STATE 11814), (sym_future_import_statement, STATE 11814),
    (sym_import_from_statement, STATE 11814), (sym_print_statement, STATE 11814),
    (sym_assert_statement, STATE 11814), (sym_comptime_assert_statement, STATE 11814),
    (sym_expression_statement, STATE 11814), (sym_tuple_expression, STATE 12425),
    (sym_named_expression, STATE 7969), (sym__named_expression_lhs, STATE 12752),
    (sym_return_statement, STATE 11814), (sym_delete_statement, STATE 11814),
    (sym_raise_statement, STATE 11814), (sym_pass_statement, STATE 11814),
    (sym_break_statement, STATE 11814), (sym_continue_statement, STATE 11814),
    (sym_extension_definition, STATE 925), (sym_mlir_region, STATE 925),
    (sym_comptime_statement, STATE 925), (sym_if_statement, STATE 925),
    (sym_match_statement, STATE 925), (sym_for_statement, STATE 925),
    (sym_while_statement, STATE 925), (sym_try_statement, STATE 925),
    (sym_with_statement, STATE 925), (sym_function_definition, STATE 925),
    (sym_global_statement, STATE 11814), (sym_nonlocal_statement, STATE 11814),
    (sym_exec_statement, STATE 11814), (sym_type_alias_statement, STATE 11814),
    (sym_parameterized_alias_statement, STATE 11814), (sym_class_definition, STATE 925),
    (sym_trait_definition, STATE 925), (sym_decorated_definition, STATE 925),
    (sym_decorator, STATE 3670), (sym_block, STATE 4579), (sym_pattern, STATE 8086),
    (sym_tuple_pattern, STATE 8101), (sym_list_pattern, STATE 8101),
    (sym_list_splat_pattern, STATE 6819), (sym_as_pattern, STATE 7969),
    (sym_expression, STATE 9883), (sym_primary_expression, STATE 7326),
    (sym_comptime_expression, STATE 7017), (sym_transfer_expression, STATE 7017),
    (sym_not_operator, STATE 7969), (sym_boolean_operator, STATE 7969),
    (sym_binary_operator, STATE 7017), (sym_unary_operator, STATE 7017),
    (sym_comparison_operator, STATE 7969), (sym_lambda, STATE 7969),
    (sym_assignment, STATE 12425), (sym_augmented_assignment, STATE 12425),
    (sym_pattern_list, STATE 8578), (sym_yield, STATE 12425), (sym_attribute, STATE 6836),
    (sym_subscript, STATE 6838), (sym_call, STATE 6845), (sym_mlir_type, STATE 7017),
    (sym_list, STATE 7017), (sym_set, STATE 7017), (sym_tuple, STATE 7017),
    (sym_dictionary, STATE 7017), (sym_struct_literal, STATE 7017),
    (sym_list_comprehension, STATE 7017), (sym_dictionary_comprehension, STATE 7017),
    (sym_set_comprehension, STATE 7017), (sym_generator_expression, STATE 7017),
    (sym_parenthesized_expression, STATE 7017), (sym_conditional_expression, STATE 7969),
    (sym_concatenated_string, STATE 7017), (sym_string, STATE 6751), (sym_await, STATE 7017),
    (aux_sym_module_repeat1, STATE 925), (aux_sym_decorated_definition_repeat1, STATE 3670),
    (sym_identifier, ACTIONS 9), (anon_sym_import, ACTIONS 11), (anon_sym_from, ACTIONS 13),
    (anon_sym_LPAREN, ACTIONS 15), (anon_sym_STAR, ACTIONS 17), (anon_sym_print, ACTIONS 19),
    (anon_sym_comptime, ACTIONS 99), (anon_sym_assert, ACTIONS 23),
    (anon_sym___comptime_assert, ACTIONS 25), (anon_sym_return, ACTIONS 27),
    (anon_sym_del, ACTIONS 29), (anon_sym_raise, ACTIONS 31), (anon_sym_pass, ACTIONS 33),
    (anon_sym_break, ACTIONS 35), (anon_sym_continue, ACTIONS 37),
    (anon_sym___extension, ACTIONS 101), (anon_sym___mlir_region, ACTIONS 103),
    (anon_sym_if, ACTIONS 105), (anon_sym_match, ACTIONS 107), (anon_sym_async, ACTIONS 109),
    (anon_sym_for, ACTIONS 111), (anon_sym_while, ACTIONS 113), (anon_sym_try, ACTIONS 115),
    (anon_sym_with, ACTIONS 117), (anon_sym_def, ACTIONS 119), (anon_sym_fn, ACTIONS 119),
    (anon_sym_LBRACK, ACTIONS 59), (anon_sym_LBRACE, ACTIONS 61), (anon_sym_global, ACTIONS 63),
    (anon_sym_nonlocal, ACTIONS 65), (anon_sym_exec, ACTIONS 67), (anon_sym_type, ACTIONS 69),
    (anon_sym_class, ACTIONS 121), (anon_sym_struct, ACTIONS 121), (anon_sym_mut, ACTIONS 73),
    (anon_sym_out, ACTIONS 73), (anon_sym_trait, ACTIONS 123), (anon_sym_AT, ACTIONS 77),
    (anon_sym_DASH, ACTIONS 79), (anon_sym_PLUS, ACTIONS 79), (anon_sym_ref, ACTIONS 81),
    (anon_sym_var, ACTIONS 81), (anon_sym_not, ACTIONS 83), (anon_sym_TILDE, ACTIONS 79),
    (anon_sym_lambda, ACTIONS 85), (anon_sym_yield, ACTIONS 87), (sym_ellipsis, ACTIONS 89),
    (anon_sym___mlir_type, ACTIONS 91), (sym_integer, ACTIONS 93), (sym_float, ACTIONS 89),
    (anon_sym_await, ACTIONS 95), (sym_true, ACTIONS 93), (sym_false, ACTIONS 93),
    (sym_none, ACTIONS 93), (sym_comment, ACTIONS 3), (sym_line_continuation, ACTIONS 3),
    (sym__dedent, ACTIONS 129), (sym_string_start, ACTIONS 97)]"

definition parse_table_920 :: "(nat \<times> nat) list" where "parse_table_920 = [
    (sym__statement, STATE 924), (sym__simple_statements, STATE 924),
    (sym_import_statement, STATE 11814), (sym_future_import_statement, STATE 11814),
    (sym_import_from_statement, STATE 11814), (sym_print_statement, STATE 11814),
    (sym_assert_statement, STATE 11814), (sym_comptime_assert_statement, STATE 11814),
    (sym_expression_statement, STATE 11814), (sym_tuple_expression, STATE 12425),
    (sym_named_expression, STATE 7969), (sym__named_expression_lhs, STATE 12752),
    (sym_return_statement, STATE 11814), (sym_delete_statement, STATE 11814),
    (sym_raise_statement, STATE 11814), (sym_pass_statement, STATE 11814),
    (sym_break_statement, STATE 11814), (sym_continue_statement, STATE 11814),
    (sym_extension_definition, STATE 924), (sym_mlir_region, STATE 924),
    (sym_comptime_statement, STATE 924), (sym_if_statement, STATE 924),
    (sym_match_statement, STATE 924), (sym_for_statement, STATE 924),
    (sym_while_statement, STATE 924), (sym_try_statement, STATE 924),
    (sym_with_statement, STATE 924), (sym_function_definition, STATE 924),
    (sym_global_statement, STATE 11814), (sym_nonlocal_statement, STATE 11814),
    (sym_exec_statement, STATE 11814), (sym_type_alias_statement, STATE 11814),
    (sym_parameterized_alias_statement, STATE 11814), (sym_class_definition, STATE 924),
    (sym_trait_definition, STATE 924), (sym_decorated_definition, STATE 924),
    (sym_decorator, STATE 3670), (sym_pattern, STATE 8086), (sym_tuple_pattern, STATE 8101),
    (sym_list_pattern, STATE 8101), (sym_list_splat_pattern, STATE 6819),
    (sym_as_pattern, STATE 7969), (sym_expression, STATE 9883),
    (sym_primary_expression, STATE 7326), (sym_comptime_expression, STATE 7017),
    (sym_transfer_expression, STATE 7017), (sym_not_operator, STATE 7969),
    (sym_boolean_operator, STATE 7969), (sym_binary_operator, STATE 7017),
    (sym_unary_operator, STATE 7017), (sym_comparison_operator, STATE 7969),
    (sym_lambda, STATE 7969), (sym_assignment, STATE 12425),
    (sym_augmented_assignment, STATE 12425), (sym_pattern_list, STATE 8578),
    (sym_yield, STATE 12425), (sym_attribute, STATE 6836), (sym_subscript, STATE 6838),
    (sym_call, STATE 6845), (sym_mlir_type, STATE 7017), (sym_list, STATE 7017),
    (sym_set, STATE 7017), (sym_tuple, STATE 7017), (sym_dictionary, STATE 7017),
    (sym_struct_literal, STATE 7017), (sym_list_comprehension, STATE 7017),
    (sym_dictionary_comprehension, STATE 7017), (sym_set_comprehension, STATE 7017),
    (sym_generator_expression, STATE 7017), (sym_parenthesized_expression, STATE 7017),
    (sym_conditional_expression, STATE 7969), (sym_concatenated_string, STATE 7017),
    (sym_string, STATE 6751), (sym_await, STATE 7017), (aux_sym_module_repeat1, STATE 924),
    (aux_sym_decorated_definition_repeat1, STATE 3670), (sym_identifier, ACTIONS 9),
    (anon_sym_import, ACTIONS 11), (anon_sym_from, ACTIONS 13), (anon_sym_LPAREN, ACTIONS 15),
    (anon_sym_STAR, ACTIONS 17), (anon_sym_print, ACTIONS 19), (anon_sym_comptime, ACTIONS 99),
    (anon_sym_assert, ACTIONS 23), (anon_sym___comptime_assert, ACTIONS 25),
    (anon_sym_return, ACTIONS 27), (anon_sym_del, ACTIONS 29), (anon_sym_raise, ACTIONS 31),
    (anon_sym_pass, ACTIONS 33), (anon_sym_break, ACTIONS 35), (anon_sym_continue, ACTIONS 37),
    (anon_sym___extension, ACTIONS 101), (anon_sym___mlir_region, ACTIONS 103),
    (anon_sym_if, ACTIONS 105), (anon_sym_match, ACTIONS 107), (anon_sym_async, ACTIONS 109),
    (anon_sym_for, ACTIONS 111), (anon_sym_while, ACTIONS 113), (anon_sym_try, ACTIONS 115),
    (anon_sym_with, ACTIONS 117), (anon_sym_def, ACTIONS 119), (anon_sym_fn, ACTIONS 119),
    (anon_sym_LBRACK, ACTIONS 59), (anon_sym_LBRACE, ACTIONS 61), (anon_sym_global, ACTIONS 63),
    (anon_sym_nonlocal, ACTIONS 65), (anon_sym_exec, ACTIONS 67), (anon_sym_type, ACTIONS 69),
    (anon_sym_class, ACTIONS 121), (anon_sym_struct, ACTIONS 121), (anon_sym_mut, ACTIONS 73),
    (anon_sym_out, ACTIONS 73), (anon_sym_trait, ACTIONS 123), (anon_sym_AT, ACTIONS 77),
    (anon_sym_DASH, ACTIONS 79), (anon_sym_PLUS, ACTIONS 79), (anon_sym_ref, ACTIONS 81),
    (anon_sym_var, ACTIONS 81), (anon_sym_not, ACTIONS 83), (anon_sym_TILDE, ACTIONS 79),
    (anon_sym_lambda, ACTIONS 85), (anon_sym_yield, ACTIONS 87), (sym_ellipsis, ACTIONS 89),
    (anon_sym___mlir_type, ACTIONS 91), (sym_integer, ACTIONS 93), (sym_float, ACTIONS 89),
    (anon_sym_await, ACTIONS 95), (sym_true, ACTIONS 93), (sym_false, ACTIONS 93),
    (sym_none, ACTIONS 93), (sym_comment, ACTIONS 3), (sym_line_continuation, ACTIONS 3),
    (sym__dedent, ACTIONS 137), (sym_string_start, ACTIONS 97)]"

definition parse_table_921 :: "(nat \<times> nat) list" where "parse_table_921 = [
    (sym__statement, STATE 923), (sym__simple_statements, STATE 923),
    (sym_import_statement, STATE 12239), (sym_future_import_statement, STATE 12239),
    (sym_import_from_statement, STATE 12239), (sym_print_statement, STATE 12239),
    (sym_assert_statement, STATE 12239), (sym_comptime_assert_statement, STATE 12239),
    (sym_expression_statement, STATE 12239), (sym_tuple_expression, STATE 12425),
    (sym_named_expression, STATE 7969), (sym__named_expression_lhs, STATE 12752),
    (sym_return_statement, STATE 12239), (sym_delete_statement, STATE 12239),
    (sym_raise_statement, STATE 12239), (sym_pass_statement, STATE 12239),
    (sym_break_statement, STATE 12239), (sym_continue_statement, STATE 12239),
    (sym_extension_definition, STATE 923), (sym_mlir_region, STATE 923),
    (sym_comptime_statement, STATE 923), (sym_if_statement, STATE 923),
    (sym_match_statement, STATE 923), (sym_for_statement, STATE 923),
    (sym_while_statement, STATE 923), (sym_try_statement, STATE 923),
    (sym_with_statement, STATE 923), (sym_function_definition, STATE 923),
    (sym_global_statement, STATE 12239), (sym_nonlocal_statement, STATE 12239),
    (sym_exec_statement, STATE 12239), (sym_type_alias_statement, STATE 12239),
    (sym_parameterized_alias_statement, STATE 12239), (sym_class_definition, STATE 923),
    (sym_trait_definition, STATE 923), (sym_decorated_definition, STATE 923),
    (sym_decorator, STATE 3668), (sym_pattern, STATE 8086), (sym_tuple_pattern, STATE 8101),
    (sym_list_pattern, STATE 8101), (sym_list_splat_pattern, STATE 6819),
    (sym_as_pattern, STATE 7969), (sym_expression, STATE 9883),
    (sym_primary_expression, STATE 7326), (sym_comptime_expression, STATE 7017),
    (sym_transfer_expression, STATE 7017), (sym_not_operator, STATE 7969),
    (sym_boolean_operator, STATE 7969), (sym_binary_operator, STATE 7017),
    (sym_unary_operator, STATE 7017), (sym_comparison_operator, STATE 7969),
    (sym_lambda, STATE 7969), (sym_assignment, STATE 12425),
    (sym_augmented_assignment, STATE 12425), (sym_pattern_list, STATE 8578),
    (sym_yield, STATE 12425), (sym_attribute, STATE 6836), (sym_subscript, STATE 6838),
    (sym_call, STATE 6845), (sym_mlir_type, STATE 7017), (sym_list, STATE 7017),
    (sym_set, STATE 7017), (sym_tuple, STATE 7017), (sym_dictionary, STATE 7017),
    (sym_struct_literal, STATE 7017), (sym_list_comprehension, STATE 7017),
    (sym_dictionary_comprehension, STATE 7017), (sym_set_comprehension, STATE 7017),
    (sym_generator_expression, STATE 7017), (sym_parenthesized_expression, STATE 7017),
    (sym_conditional_expression, STATE 7969), (sym_concatenated_string, STATE 7017),
    (sym_string, STATE 6751), (sym_await, STATE 7017), (aux_sym_module_repeat1, STATE 923),
    (aux_sym_decorated_definition_repeat1, STATE 3668), (ts_builtin_sym_end, ACTIONS 139),
    (sym_identifier, ACTIONS 9), (anon_sym_import, ACTIONS 11), (anon_sym_from, ACTIONS 13),
    (anon_sym_LPAREN, ACTIONS 15), (anon_sym_STAR, ACTIONS 17), (anon_sym_print, ACTIONS 19),
    (anon_sym_comptime, ACTIONS 21), (anon_sym_assert, ACTIONS 23),
    (anon_sym___comptime_assert, ACTIONS 25), (anon_sym_return, ACTIONS 27),
    (anon_sym_del, ACTIONS 29), (anon_sym_raise, ACTIONS 31), (anon_sym_pass, ACTIONS 33),
    (anon_sym_break, ACTIONS 35), (anon_sym_continue, ACTIONS 37),
    (anon_sym___extension, ACTIONS 39), (anon_sym___mlir_region, ACTIONS 41),
    (anon_sym_if, ACTIONS 43), (anon_sym_match, ACTIONS 45), (anon_sym_async, ACTIONS 47),
    (anon_sym_for, ACTIONS 49), (anon_sym_while, ACTIONS 51), (anon_sym_try, ACTIONS 53),
    (anon_sym_with, ACTIONS 55), (anon_sym_def, ACTIONS 57), (anon_sym_fn, ACTIONS 57),
    (anon_sym_LBRACK, ACTIONS 59), (anon_sym_LBRACE, ACTIONS 61), (anon_sym_global, ACTIONS 63),
    (anon_sym_nonlocal, ACTIONS 65), (anon_sym_exec, ACTIONS 67), (anon_sym_type, ACTIONS 69),
    (anon_sym_class, ACTIONS 71), (anon_sym_struct, ACTIONS 71), (anon_sym_mut, ACTIONS 73),
    (anon_sym_out, ACTIONS 73), (anon_sym_trait, ACTIONS 75), (anon_sym_AT, ACTIONS 77),
    (anon_sym_DASH, ACTIONS 79), (anon_sym_PLUS, ACTIONS 79), (anon_sym_ref, ACTIONS 81),
    (anon_sym_var, ACTIONS 81), (anon_sym_not, ACTIONS 83), (anon_sym_TILDE, ACTIONS 79),
    (anon_sym_lambda, ACTIONS 85), (anon_sym_yield, ACTIONS 87), (sym_ellipsis, ACTIONS 89),
    (anon_sym___mlir_type, ACTIONS 91), (sym_integer, ACTIONS 93), (sym_float, ACTIONS 89),
    (anon_sym_await, ACTIONS 95), (sym_true, ACTIONS 93), (sym_false, ACTIONS 93),
    (sym_none, ACTIONS 93), (sym_comment, ACTIONS 3), (sym_line_continuation, ACTIONS 3),
    (sym_string_start, ACTIONS 97)]"

definition parse_table_922 :: "(nat \<times> nat) list" where "parse_table_922 = [
    (sym__statement, STATE 924), (sym__simple_statements, STATE 924),
    (sym_import_statement, STATE 11814), (sym_future_import_statement, STATE 11814),
    (sym_import_from_statement, STATE 11814), (sym_print_statement, STATE 11814),
    (sym_assert_statement, STATE 11814), (sym_comptime_assert_statement, STATE 11814),
    (sym_expression_statement, STATE 11814), (sym_tuple_expression, STATE 12425),
    (sym_named_expression, STATE 7969), (sym__named_expression_lhs, STATE 12752),
    (sym_return_statement, STATE 11814), (sym_delete_statement, STATE 11814),
    (sym_raise_statement, STATE 11814), (sym_pass_statement, STATE 11814),
    (sym_break_statement, STATE 11814), (sym_continue_statement, STATE 11814),
    (sym_extension_definition, STATE 924), (sym_mlir_region, STATE 924),
    (sym_comptime_statement, STATE 924), (sym_if_statement, STATE 924),
    (sym_match_statement, STATE 924), (sym_for_statement, STATE 924),
    (sym_while_statement, STATE 924), (sym_try_statement, STATE 924),
    (sym_with_statement, STATE 924), (sym_function_definition, STATE 924),
    (sym_global_statement, STATE 11814), (sym_nonlocal_statement, STATE 11814),
    (sym_exec_statement, STATE 11814), (sym_type_alias_statement, STATE 11814),
    (sym_parameterized_alias_statement, STATE 11814), (sym_class_definition, STATE 924),
    (sym_trait_definition, STATE 924), (sym_decorated_definition, STATE 924),
    (sym_decorator, STATE 3670), (sym_pattern, STATE 8086), (sym_tuple_pattern, STATE 8101),
    (sym_list_pattern, STATE 8101), (sym_list_splat_pattern, STATE 6819),
    (sym_as_pattern, STATE 7969), (sym_expression, STATE 9883),
    (sym_primary_expression, STATE 7326), (sym_comptime_expression, STATE 7017),
    (sym_transfer_expression, STATE 7017), (sym_not_operator, STATE 7969),
    (sym_boolean_operator, STATE 7969), (sym_binary_operator, STATE 7017),
    (sym_unary_operator, STATE 7017), (sym_comparison_operator, STATE 7969),
    (sym_lambda, STATE 7969), (sym_assignment, STATE 12425),
    (sym_augmented_assignment, STATE 12425), (sym_pattern_list, STATE 8578),
    (sym_yield, STATE 12425), (sym_attribute, STATE 6836), (sym_subscript, STATE 6838),
    (sym_call, STATE 6845), (sym_mlir_type, STATE 7017), (sym_list, STATE 7017),
    (sym_set, STATE 7017), (sym_tuple, STATE 7017), (sym_dictionary, STATE 7017),
    (sym_struct_literal, STATE 7017), (sym_list_comprehension, STATE 7017),
    (sym_dictionary_comprehension, STATE 7017), (sym_set_comprehension, STATE 7017),
    (sym_generator_expression, STATE 7017), (sym_parenthesized_expression, STATE 7017),
    (sym_conditional_expression, STATE 7969), (sym_concatenated_string, STATE 7017),
    (sym_string, STATE 6751), (sym_await, STATE 7017), (aux_sym_module_repeat1, STATE 924),
    (aux_sym_decorated_definition_repeat1, STATE 3670), (sym_identifier, ACTIONS 9),
    (anon_sym_import, ACTIONS 11), (anon_sym_from, ACTIONS 13), (anon_sym_LPAREN, ACTIONS 15),
    (anon_sym_STAR, ACTIONS 17), (anon_sym_print, ACTIONS 19), (anon_sym_comptime, ACTIONS 99),
    (anon_sym_assert, ACTIONS 23), (anon_sym___comptime_assert, ACTIONS 25),
    (anon_sym_return, ACTIONS 27), (anon_sym_del, ACTIONS 29), (anon_sym_raise, ACTIONS 31),
    (anon_sym_pass, ACTIONS 33), (anon_sym_break, ACTIONS 35), (anon_sym_continue, ACTIONS 37),
    (anon_sym___extension, ACTIONS 101), (anon_sym___mlir_region, ACTIONS 103),
    (anon_sym_if, ACTIONS 105), (anon_sym_match, ACTIONS 107), (anon_sym_async, ACTIONS 109),
    (anon_sym_for, ACTIONS 111), (anon_sym_while, ACTIONS 113), (anon_sym_try, ACTIONS 115),
    (anon_sym_with, ACTIONS 117), (anon_sym_def, ACTIONS 119), (anon_sym_fn, ACTIONS 119),
    (anon_sym_LBRACK, ACTIONS 59), (anon_sym_LBRACE, ACTIONS 61), (anon_sym_global, ACTIONS 63),
    (anon_sym_nonlocal, ACTIONS 65), (anon_sym_exec, ACTIONS 67), (anon_sym_type, ACTIONS 69),
    (anon_sym_class, ACTIONS 121), (anon_sym_struct, ACTIONS 121), (anon_sym_mut, ACTIONS 73),
    (anon_sym_out, ACTIONS 73), (anon_sym_trait, ACTIONS 123), (anon_sym_AT, ACTIONS 77),
    (anon_sym_DASH, ACTIONS 79), (anon_sym_PLUS, ACTIONS 79), (anon_sym_ref, ACTIONS 81),
    (anon_sym_var, ACTIONS 81), (anon_sym_not, ACTIONS 83), (anon_sym_TILDE, ACTIONS 79),
    (anon_sym_lambda, ACTIONS 85), (anon_sym_yield, ACTIONS 87), (sym_ellipsis, ACTIONS 89),
    (anon_sym___mlir_type, ACTIONS 91), (sym_integer, ACTIONS 93), (sym_float, ACTIONS 89),
    (anon_sym_await, ACTIONS 95), (sym_true, ACTIONS 93), (sym_false, ACTIONS 93),
    (sym_none, ACTIONS 93), (sym_comment, ACTIONS 3), (sym_line_continuation, ACTIONS 3),
    (sym__dedent, ACTIONS 141), (sym_string_start, ACTIONS 97)]"

definition parse_table_923 :: "(nat \<times> nat) list" where "parse_table_923 = [
    (sym__statement, STATE 923), (sym__simple_statements, STATE 923),
    (sym_import_statement, STATE 12239), (sym_future_import_statement, STATE 12239),
    (sym_import_from_statement, STATE 12239), (sym_print_statement, STATE 12239),
    (sym_assert_statement, STATE 12239), (sym_comptime_assert_statement, STATE 12239),
    (sym_expression_statement, STATE 12239), (sym_tuple_expression, STATE 12425),
    (sym_named_expression, STATE 7969), (sym__named_expression_lhs, STATE 12752),
    (sym_return_statement, STATE 12239), (sym_delete_statement, STATE 12239),
    (sym_raise_statement, STATE 12239), (sym_pass_statement, STATE 12239),
    (sym_break_statement, STATE 12239), (sym_continue_statement, STATE 12239),
    (sym_extension_definition, STATE 923), (sym_mlir_region, STATE 923),
    (sym_comptime_statement, STATE 923), (sym_if_statement, STATE 923),
    (sym_match_statement, STATE 923), (sym_for_statement, STATE 923),
    (sym_while_statement, STATE 923), (sym_try_statement, STATE 923),
    (sym_with_statement, STATE 923), (sym_function_definition, STATE 923),
    (sym_global_statement, STATE 12239), (sym_nonlocal_statement, STATE 12239),
    (sym_exec_statement, STATE 12239), (sym_type_alias_statement, STATE 12239),
    (sym_parameterized_alias_statement, STATE 12239), (sym_class_definition, STATE 923),
    (sym_trait_definition, STATE 923), (sym_decorated_definition, STATE 923),
    (sym_decorator, STATE 3668), (sym_pattern, STATE 8086), (sym_tuple_pattern, STATE 8101),
    (sym_list_pattern, STATE 8101), (sym_list_splat_pattern, STATE 6819),
    (sym_as_pattern, STATE 7969), (sym_expression, STATE 9883),
    (sym_primary_expression, STATE 7326), (sym_comptime_expression, STATE 7017),
    (sym_transfer_expression, STATE 7017), (sym_not_operator, STATE 7969),
    (sym_boolean_operator, STATE 7969), (sym_binary_operator, STATE 7017),
    (sym_unary_operator, STATE 7017), (sym_comparison_operator, STATE 7969),
    (sym_lambda, STATE 7969), (sym_assignment, STATE 12425),
    (sym_augmented_assignment, STATE 12425), (sym_pattern_list, STATE 8578),
    (sym_yield, STATE 12425), (sym_attribute, STATE 6836), (sym_subscript, STATE 6838),
    (sym_call, STATE 6845), (sym_mlir_type, STATE 7017), (sym_list, STATE 7017),
    (sym_set, STATE 7017), (sym_tuple, STATE 7017), (sym_dictionary, STATE 7017),
    (sym_struct_literal, STATE 7017), (sym_list_comprehension, STATE 7017),
    (sym_dictionary_comprehension, STATE 7017), (sym_set_comprehension, STATE 7017),
    (sym_generator_expression, STATE 7017), (sym_parenthesized_expression, STATE 7017),
    (sym_conditional_expression, STATE 7969), (sym_concatenated_string, STATE 7017),
    (sym_string, STATE 6751), (sym_await, STATE 7017), (aux_sym_module_repeat1, STATE 923),
    (aux_sym_decorated_definition_repeat1, STATE 3668), (ts_builtin_sym_end, ACTIONS 143),
    (sym_identifier, ACTIONS 145), (anon_sym_import, ACTIONS 148), (anon_sym_from, ACTIONS 151),
    (anon_sym_LPAREN, ACTIONS 154), (anon_sym_STAR, ACTIONS 157), (anon_sym_print, ACTIONS 160),
    (anon_sym_comptime, ACTIONS 163), (anon_sym_assert, ACTIONS 166),
    (anon_sym___comptime_assert, ACTIONS 169), (anon_sym_return, ACTIONS 172),
    (anon_sym_del, ACTIONS 175), (anon_sym_raise, ACTIONS 178), (anon_sym_pass, ACTIONS 181),
    (anon_sym_break, ACTIONS 184), (anon_sym_continue, ACTIONS 187),
    (anon_sym___extension, ACTIONS 190), (anon_sym___mlir_region, ACTIONS 193),
    (anon_sym_if, ACTIONS 196), (anon_sym_match, ACTIONS 199), (anon_sym_async, ACTIONS 202),
    (anon_sym_for, ACTIONS 205), (anon_sym_while, ACTIONS 208), (anon_sym_try, ACTIONS 211),
    (anon_sym_with, ACTIONS 214), (anon_sym_def, ACTIONS 217), (anon_sym_fn, ACTIONS 217),
    (anon_sym_LBRACK, ACTIONS 220), (anon_sym_LBRACE, ACTIONS 223),
    (anon_sym_global, ACTIONS 226), (anon_sym_nonlocal, ACTIONS 229),
    (anon_sym_exec, ACTIONS 232), (anon_sym_type, ACTIONS 235), (anon_sym_class, ACTIONS 238),
    (anon_sym_struct, ACTIONS 238), (anon_sym_mut, ACTIONS 241), (anon_sym_out, ACTIONS 241),
    (anon_sym_trait, ACTIONS 244), (anon_sym_AT, ACTIONS 247), (anon_sym_DASH, ACTIONS 250),
    (anon_sym_PLUS, ACTIONS 250), (anon_sym_ref, ACTIONS 253), (anon_sym_var, ACTIONS 253),
    (anon_sym_not, ACTIONS 256), (anon_sym_TILDE, ACTIONS 250), (anon_sym_lambda, ACTIONS 259),
    (anon_sym_yield, ACTIONS 262), (sym_ellipsis, ACTIONS 265),
    (anon_sym___mlir_type, ACTIONS 268), (sym_integer, ACTIONS 271), (sym_float, ACTIONS 265),
    (anon_sym_await, ACTIONS 274), (sym_true, ACTIONS 271), (sym_false, ACTIONS 271),
    (sym_none, ACTIONS 271), (sym_comment, ACTIONS 3), (sym_line_continuation, ACTIONS 3),
    (sym_string_start, ACTIONS 277)]"

definition parse_table_924 :: "(nat \<times> nat) list" where "parse_table_924 = [
    (sym__statement, STATE 924), (sym__simple_statements, STATE 924),
    (sym_import_statement, STATE 11814), (sym_future_import_statement, STATE 11814),
    (sym_import_from_statement, STATE 11814), (sym_print_statement, STATE 11814),
    (sym_assert_statement, STATE 11814), (sym_comptime_assert_statement, STATE 11814),
    (sym_expression_statement, STATE 11814), (sym_tuple_expression, STATE 12425),
    (sym_named_expression, STATE 7969), (sym__named_expression_lhs, STATE 12752),
    (sym_return_statement, STATE 11814), (sym_delete_statement, STATE 11814),
    (sym_raise_statement, STATE 11814), (sym_pass_statement, STATE 11814),
    (sym_break_statement, STATE 11814), (sym_continue_statement, STATE 11814),
    (sym_extension_definition, STATE 924), (sym_mlir_region, STATE 924),
    (sym_comptime_statement, STATE 924), (sym_if_statement, STATE 924),
    (sym_match_statement, STATE 924), (sym_for_statement, STATE 924),
    (sym_while_statement, STATE 924), (sym_try_statement, STATE 924),
    (sym_with_statement, STATE 924), (sym_function_definition, STATE 924),
    (sym_global_statement, STATE 11814), (sym_nonlocal_statement, STATE 11814),
    (sym_exec_statement, STATE 11814), (sym_type_alias_statement, STATE 11814),
    (sym_parameterized_alias_statement, STATE 11814), (sym_class_definition, STATE 924),
    (sym_trait_definition, STATE 924), (sym_decorated_definition, STATE 924),
    (sym_decorator, STATE 3670), (sym_pattern, STATE 8086), (sym_tuple_pattern, STATE 8101),
    (sym_list_pattern, STATE 8101), (sym_list_splat_pattern, STATE 6819),
    (sym_as_pattern, STATE 7969), (sym_expression, STATE 9883),
    (sym_primary_expression, STATE 7326), (sym_comptime_expression, STATE 7017),
    (sym_transfer_expression, STATE 7017), (sym_not_operator, STATE 7969),
    (sym_boolean_operator, STATE 7969), (sym_binary_operator, STATE 7017),
    (sym_unary_operator, STATE 7017), (sym_comparison_operator, STATE 7969),
    (sym_lambda, STATE 7969), (sym_assignment, STATE 12425),
    (sym_augmented_assignment, STATE 12425), (sym_pattern_list, STATE 8578),
    (sym_yield, STATE 12425), (sym_attribute, STATE 6836), (sym_subscript, STATE 6838),
    (sym_call, STATE 6845), (sym_mlir_type, STATE 7017), (sym_list, STATE 7017),
    (sym_set, STATE 7017), (sym_tuple, STATE 7017), (sym_dictionary, STATE 7017),
    (sym_struct_literal, STATE 7017), (sym_list_comprehension, STATE 7017),
    (sym_dictionary_comprehension, STATE 7017), (sym_set_comprehension, STATE 7017),
    (sym_generator_expression, STATE 7017), (sym_parenthesized_expression, STATE 7017),
    (sym_conditional_expression, STATE 7969), (sym_concatenated_string, STATE 7017),
    (sym_string, STATE 6751), (sym_await, STATE 7017), (aux_sym_module_repeat1, STATE 924),
    (aux_sym_decorated_definition_repeat1, STATE 3670), (sym_identifier, ACTIONS 145),
    (anon_sym_import, ACTIONS 148), (anon_sym_from, ACTIONS 151), (anon_sym_LPAREN, ACTIONS 154),
    (anon_sym_STAR, ACTIONS 157), (anon_sym_print, ACTIONS 160),
    (anon_sym_comptime, ACTIONS 280), (anon_sym_assert, ACTIONS 166),
    (anon_sym___comptime_assert, ACTIONS 169), (anon_sym_return, ACTIONS 172),
    (anon_sym_del, ACTIONS 175), (anon_sym_raise, ACTIONS 178), (anon_sym_pass, ACTIONS 181),
    (anon_sym_break, ACTIONS 184), (anon_sym_continue, ACTIONS 187),
    (anon_sym___extension, ACTIONS 283), (anon_sym___mlir_region, ACTIONS 286),
    (anon_sym_if, ACTIONS 289), (anon_sym_match, ACTIONS 292), (anon_sym_async, ACTIONS 295),
    (anon_sym_for, ACTIONS 298), (anon_sym_while, ACTIONS 301), (anon_sym_try, ACTIONS 304),
    (anon_sym_with, ACTIONS 307), (anon_sym_def, ACTIONS 310), (anon_sym_fn, ACTIONS 310),
    (anon_sym_LBRACK, ACTIONS 220), (anon_sym_LBRACE, ACTIONS 223),
    (anon_sym_global, ACTIONS 226), (anon_sym_nonlocal, ACTIONS 229),
    (anon_sym_exec, ACTIONS 232), (anon_sym_type, ACTIONS 235), (anon_sym_class, ACTIONS 313),
    (anon_sym_struct, ACTIONS 313), (anon_sym_mut, ACTIONS 241), (anon_sym_out, ACTIONS 241),
    (anon_sym_trait, ACTIONS 316), (anon_sym_AT, ACTIONS 247), (anon_sym_DASH, ACTIONS 250),
    (anon_sym_PLUS, ACTIONS 250), (anon_sym_ref, ACTIONS 253), (anon_sym_var, ACTIONS 253),
    (anon_sym_not, ACTIONS 256), (anon_sym_TILDE, ACTIONS 250), (anon_sym_lambda, ACTIONS 259),
    (anon_sym_yield, ACTIONS 262), (sym_ellipsis, ACTIONS 265),
    (anon_sym___mlir_type, ACTIONS 268), (sym_integer, ACTIONS 271), (sym_float, ACTIONS 265),
    (anon_sym_await, ACTIONS 274), (sym_true, ACTIONS 271), (sym_false, ACTIONS 271),
    (sym_none, ACTIONS 271), (sym_comment, ACTIONS 3), (sym_line_continuation, ACTIONS 3),
    (sym__dedent, ACTIONS 143), (sym_string_start, ACTIONS 277)]"

definition parse_table_925 :: "(nat \<times> nat) list" where "parse_table_925 = [
    (sym__statement, STATE 924), (sym__simple_statements, STATE 924),
    (sym_import_statement, STATE 11814), (sym_future_import_statement, STATE 11814),
    (sym_import_from_statement, STATE 11814), (sym_print_statement, STATE 11814),
    (sym_assert_statement, STATE 11814), (sym_comptime_assert_statement, STATE 11814),
    (sym_expression_statement, STATE 11814), (sym_tuple_expression, STATE 12425),
    (sym_named_expression, STATE 7969), (sym__named_expression_lhs, STATE 12752),
    (sym_return_statement, STATE 11814), (sym_delete_statement, STATE 11814),
    (sym_raise_statement, STATE 11814), (sym_pass_statement, STATE 11814),
    (sym_break_statement, STATE 11814), (sym_continue_statement, STATE 11814),
    (sym_extension_definition, STATE 924), (sym_mlir_region, STATE 924),
    (sym_comptime_statement, STATE 924), (sym_if_statement, STATE 924),
    (sym_match_statement, STATE 924), (sym_for_statement, STATE 924),
    (sym_while_statement, STATE 924), (sym_try_statement, STATE 924),
    (sym_with_statement, STATE 924), (sym_function_definition, STATE 924),
    (sym_global_statement, STATE 11814), (sym_nonlocal_statement, STATE 11814),
    (sym_exec_statement, STATE 11814), (sym_type_alias_statement, STATE 11814),
    (sym_parameterized_alias_statement, STATE 11814), (sym_class_definition, STATE 924),
    (sym_trait_definition, STATE 924), (sym_decorated_definition, STATE 924),
    (sym_decorator, STATE 3670), (sym_pattern, STATE 8086), (sym_tuple_pattern, STATE 8101),
    (sym_list_pattern, STATE 8101), (sym_list_splat_pattern, STATE 6819),
    (sym_as_pattern, STATE 7969), (sym_expression, STATE 9883),
    (sym_primary_expression, STATE 7326), (sym_comptime_expression, STATE 7017),
    (sym_transfer_expression, STATE 7017), (sym_not_operator, STATE 7969),
    (sym_boolean_operator, STATE 7969), (sym_binary_operator, STATE 7017),
    (sym_unary_operator, STATE 7017), (sym_comparison_operator, STATE 7969),
    (sym_lambda, STATE 7969), (sym_assignment, STATE 12425),
    (sym_augmented_assignment, STATE 12425), (sym_pattern_list, STATE 8578),
    (sym_yield, STATE 12425), (sym_attribute, STATE 6836), (sym_subscript, STATE 6838),
    (sym_call, STATE 6845), (sym_mlir_type, STATE 7017), (sym_list, STATE 7017),
    (sym_set, STATE 7017), (sym_tuple, STATE 7017), (sym_dictionary, STATE 7017),
    (sym_struct_literal, STATE 7017), (sym_list_comprehension, STATE 7017),
    (sym_dictionary_comprehension, STATE 7017), (sym_set_comprehension, STATE 7017),
    (sym_generator_expression, STATE 7017), (sym_parenthesized_expression, STATE 7017),
    (sym_conditional_expression, STATE 7969), (sym_concatenated_string, STATE 7017),
    (sym_string, STATE 6751), (sym_await, STATE 7017), (aux_sym_module_repeat1, STATE 924),
    (aux_sym_decorated_definition_repeat1, STATE 3670), (sym_identifier, ACTIONS 9),
    (anon_sym_import, ACTIONS 11), (anon_sym_from, ACTIONS 13), (anon_sym_LPAREN, ACTIONS 15),
    (anon_sym_STAR, ACTIONS 17), (anon_sym_print, ACTIONS 19), (anon_sym_comptime, ACTIONS 99),
    (anon_sym_assert, ACTIONS 23), (anon_sym___comptime_assert, ACTIONS 25),
    (anon_sym_return, ACTIONS 27), (anon_sym_del, ACTIONS 29), (anon_sym_raise, ACTIONS 31),
    (anon_sym_pass, ACTIONS 33), (anon_sym_break, ACTIONS 35), (anon_sym_continue, ACTIONS 37),
    (anon_sym___extension, ACTIONS 101), (anon_sym___mlir_region, ACTIONS 103),
    (anon_sym_if, ACTIONS 105), (anon_sym_match, ACTIONS 107), (anon_sym_async, ACTIONS 109),
    (anon_sym_for, ACTIONS 111), (anon_sym_while, ACTIONS 113), (anon_sym_try, ACTIONS 115),
    (anon_sym_with, ACTIONS 117), (anon_sym_def, ACTIONS 119), (anon_sym_fn, ACTIONS 119),
    (anon_sym_LBRACK, ACTIONS 59), (anon_sym_LBRACE, ACTIONS 61), (anon_sym_global, ACTIONS 63),
    (anon_sym_nonlocal, ACTIONS 65), (anon_sym_exec, ACTIONS 67), (anon_sym_type, ACTIONS 69),
    (anon_sym_class, ACTIONS 121), (anon_sym_struct, ACTIONS 121), (anon_sym_mut, ACTIONS 73),
    (anon_sym_out, ACTIONS 73), (anon_sym_trait, ACTIONS 123), (anon_sym_AT, ACTIONS 77),
    (anon_sym_DASH, ACTIONS 79), (anon_sym_PLUS, ACTIONS 79), (anon_sym_ref, ACTIONS 81),
    (anon_sym_var, ACTIONS 81), (anon_sym_not, ACTIONS 83), (anon_sym_TILDE, ACTIONS 79),
    (anon_sym_lambda, ACTIONS 85), (anon_sym_yield, ACTIONS 87), (sym_ellipsis, ACTIONS 89),
    (anon_sym___mlir_type, ACTIONS 91), (sym_integer, ACTIONS 93), (sym_float, ACTIONS 89),
    (anon_sym_await, ACTIONS 95), (sym_true, ACTIONS 93), (sym_false, ACTIONS 93),
    (sym_none, ACTIONS 93), (sym_comment, ACTIONS 3), (sym_line_continuation, ACTIONS 3),
    (sym__dedent, ACTIONS 319), (sym_string_start, ACTIONS 97)]"

definition parse_table_926 :: "(nat \<times> nat) list" where "parse_table_926 = [
    (sym__statement, STATE 924), (sym__simple_statements, STATE 924),
    (sym_import_statement, STATE 11814), (sym_future_import_statement, STATE 11814),
    (sym_import_from_statement, STATE 11814), (sym_print_statement, STATE 11814),
    (sym_assert_statement, STATE 11814), (sym_comptime_assert_statement, STATE 11814),
    (sym_expression_statement, STATE 11814), (sym_tuple_expression, STATE 12425),
    (sym_named_expression, STATE 7969), (sym__named_expression_lhs, STATE 12752),
    (sym_return_statement, STATE 11814), (sym_delete_statement, STATE 11814),
    (sym_raise_statement, STATE 11814), (sym_pass_statement, STATE 11814),
    (sym_break_statement, STATE 11814), (sym_continue_statement, STATE 11814),
    (sym_extension_definition, STATE 924), (sym_mlir_region, STATE 924),
    (sym_comptime_statement, STATE 924), (sym_if_statement, STATE 924),
    (sym_match_statement, STATE 924), (sym_for_statement, STATE 924),
    (sym_while_statement, STATE 924), (sym_try_statement, STATE 924),
    (sym_with_statement, STATE 924), (sym_function_definition, STATE 924),
    (sym_global_statement, STATE 11814), (sym_nonlocal_statement, STATE 11814),
    (sym_exec_statement, STATE 11814), (sym_type_alias_statement, STATE 11814),
    (sym_parameterized_alias_statement, STATE 11814), (sym_class_definition, STATE 924),
    (sym_trait_definition, STATE 924), (sym_decorated_definition, STATE 924),
    (sym_decorator, STATE 3670), (sym_pattern, STATE 8086), (sym_tuple_pattern, STATE 8101),
    (sym_list_pattern, STATE 8101), (sym_list_splat_pattern, STATE 6819),
    (sym_as_pattern, STATE 7969), (sym_expression, STATE 9883),
    (sym_primary_expression, STATE 7326), (sym_comptime_expression, STATE 7017),
    (sym_transfer_expression, STATE 7017), (sym_not_operator, STATE 7969),
    (sym_boolean_operator, STATE 7969), (sym_binary_operator, STATE 7017),
    (sym_unary_operator, STATE 7017), (sym_comparison_operator, STATE 7969),
    (sym_lambda, STATE 7969), (sym_assignment, STATE 12425),
    (sym_augmented_assignment, STATE 12425), (sym_pattern_list, STATE 8578),
    (sym_yield, STATE 12425), (sym_attribute, STATE 6836), (sym_subscript, STATE 6838),
    (sym_call, STATE 6845), (sym_mlir_type, STATE 7017), (sym_list, STATE 7017),
    (sym_set, STATE 7017), (sym_tuple, STATE 7017), (sym_dictionary, STATE 7017),
    (sym_struct_literal, STATE 7017), (sym_list_comprehension, STATE 7017),
    (sym_dictionary_comprehension, STATE 7017), (sym_set_comprehension, STATE 7017),
    (sym_generator_expression, STATE 7017), (sym_parenthesized_expression, STATE 7017),
    (sym_conditional_expression, STATE 7969), (sym_concatenated_string, STATE 7017),
    (sym_string, STATE 6751), (sym_await, STATE 7017), (aux_sym_module_repeat1, STATE 924),
    (aux_sym_decorated_definition_repeat1, STATE 3670), (sym_identifier, ACTIONS 9),
    (anon_sym_import, ACTIONS 11), (anon_sym_from, ACTIONS 13), (anon_sym_LPAREN, ACTIONS 15),
    (anon_sym_STAR, ACTIONS 17), (anon_sym_print, ACTIONS 19), (anon_sym_comptime, ACTIONS 99),
    (anon_sym_assert, ACTIONS 23), (anon_sym___comptime_assert, ACTIONS 25),
    (anon_sym_return, ACTIONS 27), (anon_sym_del, ACTIONS 29), (anon_sym_raise, ACTIONS 31),
    (anon_sym_pass, ACTIONS 33), (anon_sym_break, ACTIONS 35), (anon_sym_continue, ACTIONS 37),
    (anon_sym___extension, ACTIONS 101), (anon_sym___mlir_region, ACTIONS 103),
    (anon_sym_if, ACTIONS 105), (anon_sym_match, ACTIONS 107), (anon_sym_async, ACTIONS 109),
    (anon_sym_for, ACTIONS 111), (anon_sym_while, ACTIONS 113), (anon_sym_try, ACTIONS 115),
    (anon_sym_with, ACTIONS 117), (anon_sym_def, ACTIONS 119), (anon_sym_fn, ACTIONS 119),
    (anon_sym_LBRACK, ACTIONS 59), (anon_sym_LBRACE, ACTIONS 61), (anon_sym_global, ACTIONS 63),
    (anon_sym_nonlocal, ACTIONS 65), (anon_sym_exec, ACTIONS 67), (anon_sym_type, ACTIONS 69),
    (anon_sym_class, ACTIONS 121), (anon_sym_struct, ACTIONS 121), (anon_sym_mut, ACTIONS 73),
    (anon_sym_out, ACTIONS 73), (anon_sym_trait, ACTIONS 123), (anon_sym_AT, ACTIONS 77),
    (anon_sym_DASH, ACTIONS 79), (anon_sym_PLUS, ACTIONS 79), (anon_sym_ref, ACTIONS 81),
    (anon_sym_var, ACTIONS 81), (anon_sym_not, ACTIONS 83), (anon_sym_TILDE, ACTIONS 79),
    (anon_sym_lambda, ACTIONS 85), (anon_sym_yield, ACTIONS 87), (sym_ellipsis, ACTIONS 89),
    (anon_sym___mlir_type, ACTIONS 91), (sym_integer, ACTIONS 93), (sym_float, ACTIONS 89),
    (anon_sym_await, ACTIONS 95), (sym_true, ACTIONS 93), (sym_false, ACTIONS 93),
    (sym_none, ACTIONS 93), (sym_comment, ACTIONS 3), (sym_line_continuation, ACTIONS 3),
    (sym__dedent, ACTIONS 321), (sym_string_start, ACTIONS 97)]"

definition parse_table_927 :: "(nat \<times> nat) list" where "parse_table_927 = [
    (sym__statement, STATE 924), (sym__simple_statements, STATE 924),
    (sym_import_statement, STATE 11814), (sym_future_import_statement, STATE 11814),
    (sym_import_from_statement, STATE 11814), (sym_print_statement, STATE 11814),
    (sym_assert_statement, STATE 11814), (sym_comptime_assert_statement, STATE 11814),
    (sym_expression_statement, STATE 11814), (sym_tuple_expression, STATE 12425),
    (sym_named_expression, STATE 7969), (sym__named_expression_lhs, STATE 12752),
    (sym_return_statement, STATE 11814), (sym_delete_statement, STATE 11814),
    (sym_raise_statement, STATE 11814), (sym_pass_statement, STATE 11814),
    (sym_break_statement, STATE 11814), (sym_continue_statement, STATE 11814),
    (sym_extension_definition, STATE 924), (sym_mlir_region, STATE 924),
    (sym_comptime_statement, STATE 924), (sym_if_statement, STATE 924),
    (sym_match_statement, STATE 924), (sym_for_statement, STATE 924),
    (sym_while_statement, STATE 924), (sym_try_statement, STATE 924),
    (sym_with_statement, STATE 924), (sym_function_definition, STATE 924),
    (sym_global_statement, STATE 11814), (sym_nonlocal_statement, STATE 11814),
    (sym_exec_statement, STATE 11814), (sym_type_alias_statement, STATE 11814),
    (sym_parameterized_alias_statement, STATE 11814), (sym_class_definition, STATE 924),
    (sym_trait_definition, STATE 924), (sym_decorated_definition, STATE 924),
    (sym_decorator, STATE 3670), (sym_pattern, STATE 8086), (sym_tuple_pattern, STATE 8101),
    (sym_list_pattern, STATE 8101), (sym_list_splat_pattern, STATE 6819),
    (sym_as_pattern, STATE 7969), (sym_expression, STATE 9883),
    (sym_primary_expression, STATE 7326), (sym_comptime_expression, STATE 7017),
    (sym_transfer_expression, STATE 7017), (sym_not_operator, STATE 7969),
    (sym_boolean_operator, STATE 7969), (sym_binary_operator, STATE 7017),
    (sym_unary_operator, STATE 7017), (sym_comparison_operator, STATE 7969),
    (sym_lambda, STATE 7969), (sym_assignment, STATE 12425),
    (sym_augmented_assignment, STATE 12425), (sym_pattern_list, STATE 8578),
    (sym_yield, STATE 12425), (sym_attribute, STATE 6836), (sym_subscript, STATE 6838),
    (sym_call, STATE 6845), (sym_mlir_type, STATE 7017), (sym_list, STATE 7017),
    (sym_set, STATE 7017), (sym_tuple, STATE 7017), (sym_dictionary, STATE 7017),
    (sym_struct_literal, STATE 7017), (sym_list_comprehension, STATE 7017),
    (sym_dictionary_comprehension, STATE 7017), (sym_set_comprehension, STATE 7017),
    (sym_generator_expression, STATE 7017), (sym_parenthesized_expression, STATE 7017),
    (sym_conditional_expression, STATE 7969), (sym_concatenated_string, STATE 7017),
    (sym_string, STATE 6751), (sym_await, STATE 7017), (aux_sym_module_repeat1, STATE 924),
    (aux_sym_decorated_definition_repeat1, STATE 3670), (sym_identifier, ACTIONS 9),
    (anon_sym_import, ACTIONS 11), (anon_sym_from, ACTIONS 13), (anon_sym_LPAREN, ACTIONS 15),
    (anon_sym_STAR, ACTIONS 17), (anon_sym_print, ACTIONS 19), (anon_sym_comptime, ACTIONS 99),
    (anon_sym_assert, ACTIONS 23), (anon_sym___comptime_assert, ACTIONS 25),
    (anon_sym_return, ACTIONS 27), (anon_sym_del, ACTIONS 29), (anon_sym_raise, ACTIONS 31),
    (anon_sym_pass, ACTIONS 33), (anon_sym_break, ACTIONS 35), (anon_sym_continue, ACTIONS 37),
    (anon_sym___extension, ACTIONS 101), (anon_sym___mlir_region, ACTIONS 103),
    (anon_sym_if, ACTIONS 105), (anon_sym_match, ACTIONS 107), (anon_sym_async, ACTIONS 109),
    (anon_sym_for, ACTIONS 111), (anon_sym_while, ACTIONS 113), (anon_sym_try, ACTIONS 115),
    (anon_sym_with, ACTIONS 117), (anon_sym_def, ACTIONS 119), (anon_sym_fn, ACTIONS 119),
    (anon_sym_LBRACK, ACTIONS 59), (anon_sym_LBRACE, ACTIONS 61), (anon_sym_global, ACTIONS 63),
    (anon_sym_nonlocal, ACTIONS 65), (anon_sym_exec, ACTIONS 67), (anon_sym_type, ACTIONS 69),
    (anon_sym_class, ACTIONS 121), (anon_sym_struct, ACTIONS 121), (anon_sym_mut, ACTIONS 73),
    (anon_sym_out, ACTIONS 73), (anon_sym_trait, ACTIONS 123), (anon_sym_AT, ACTIONS 77),
    (anon_sym_DASH, ACTIONS 79), (anon_sym_PLUS, ACTIONS 79), (anon_sym_ref, ACTIONS 81),
    (anon_sym_var, ACTIONS 81), (anon_sym_not, ACTIONS 83), (anon_sym_TILDE, ACTIONS 79),
    (anon_sym_lambda, ACTIONS 85), (anon_sym_yield, ACTIONS 87), (sym_ellipsis, ACTIONS 89),
    (anon_sym___mlir_type, ACTIONS 91), (sym_integer, ACTIONS 93), (sym_float, ACTIONS 89),
    (anon_sym_await, ACTIONS 95), (sym_true, ACTIONS 93), (sym_false, ACTIONS 93),
    (sym_none, ACTIONS 93), (sym_comment, ACTIONS 3), (sym_line_continuation, ACTIONS 3),
    (sym__dedent, ACTIONS 323), (sym_string_start, ACTIONS 97)]"

definition parse_table_928 :: "(nat \<times> nat) list" where "parse_table_928 = [
    (sym__statement, STATE 924), (sym__simple_statements, STATE 924),
    (sym_import_statement, STATE 11814), (sym_future_import_statement, STATE 11814),
    (sym_import_from_statement, STATE 11814), (sym_print_statement, STATE 11814),
    (sym_assert_statement, STATE 11814), (sym_comptime_assert_statement, STATE 11814),
    (sym_expression_statement, STATE 11814), (sym_tuple_expression, STATE 12425),
    (sym_named_expression, STATE 7969), (sym__named_expression_lhs, STATE 12752),
    (sym_return_statement, STATE 11814), (sym_delete_statement, STATE 11814),
    (sym_raise_statement, STATE 11814), (sym_pass_statement, STATE 11814),
    (sym_break_statement, STATE 11814), (sym_continue_statement, STATE 11814),
    (sym_extension_definition, STATE 924), (sym_mlir_region, STATE 924),
    (sym_comptime_statement, STATE 924), (sym_if_statement, STATE 924),
    (sym_match_statement, STATE 924), (sym_for_statement, STATE 924),
    (sym_while_statement, STATE 924), (sym_try_statement, STATE 924),
    (sym_with_statement, STATE 924), (sym_function_definition, STATE 924),
    (sym_global_statement, STATE 11814), (sym_nonlocal_statement, STATE 11814),
    (sym_exec_statement, STATE 11814), (sym_type_alias_statement, STATE 11814),
    (sym_parameterized_alias_statement, STATE 11814), (sym_class_definition, STATE 924),
    (sym_trait_definition, STATE 924), (sym_decorated_definition, STATE 924),
    (sym_decorator, STATE 3670), (sym_pattern, STATE 8086), (sym_tuple_pattern, STATE 8101),
    (sym_list_pattern, STATE 8101), (sym_list_splat_pattern, STATE 6819),
    (sym_as_pattern, STATE 7969), (sym_expression, STATE 9883),
    (sym_primary_expression, STATE 7326), (sym_comptime_expression, STATE 7017),
    (sym_transfer_expression, STATE 7017), (sym_not_operator, STATE 7969),
    (sym_boolean_operator, STATE 7969), (sym_binary_operator, STATE 7017),
    (sym_unary_operator, STATE 7017), (sym_comparison_operator, STATE 7969),
    (sym_lambda, STATE 7969), (sym_assignment, STATE 12425),
    (sym_augmented_assignment, STATE 12425), (sym_pattern_list, STATE 8578),
    (sym_yield, STATE 12425), (sym_attribute, STATE 6836), (sym_subscript, STATE 6838),
    (sym_call, STATE 6845), (sym_mlir_type, STATE 7017), (sym_list, STATE 7017),
    (sym_set, STATE 7017), (sym_tuple, STATE 7017), (sym_dictionary, STATE 7017),
    (sym_struct_literal, STATE 7017), (sym_list_comprehension, STATE 7017),
    (sym_dictionary_comprehension, STATE 7017), (sym_set_comprehension, STATE 7017),
    (sym_generator_expression, STATE 7017), (sym_parenthesized_expression, STATE 7017),
    (sym_conditional_expression, STATE 7969), (sym_concatenated_string, STATE 7017),
    (sym_string, STATE 6751), (sym_await, STATE 7017), (aux_sym_module_repeat1, STATE 924),
    (aux_sym_decorated_definition_repeat1, STATE 3670), (sym_identifier, ACTIONS 9),
    (anon_sym_import, ACTIONS 11), (anon_sym_from, ACTIONS 13), (anon_sym_LPAREN, ACTIONS 15),
    (anon_sym_STAR, ACTIONS 17), (anon_sym_print, ACTIONS 19), (anon_sym_comptime, ACTIONS 99),
    (anon_sym_assert, ACTIONS 23), (anon_sym___comptime_assert, ACTIONS 25),
    (anon_sym_return, ACTIONS 27), (anon_sym_del, ACTIONS 29), (anon_sym_raise, ACTIONS 31),
    (anon_sym_pass, ACTIONS 33), (anon_sym_break, ACTIONS 35), (anon_sym_continue, ACTIONS 37),
    (anon_sym___extension, ACTIONS 101), (anon_sym___mlir_region, ACTIONS 103),
    (anon_sym_if, ACTIONS 105), (anon_sym_match, ACTIONS 107), (anon_sym_async, ACTIONS 109),
    (anon_sym_for, ACTIONS 111), (anon_sym_while, ACTIONS 113), (anon_sym_try, ACTIONS 115),
    (anon_sym_with, ACTIONS 117), (anon_sym_def, ACTIONS 119), (anon_sym_fn, ACTIONS 119),
    (anon_sym_LBRACK, ACTIONS 59), (anon_sym_LBRACE, ACTIONS 61), (anon_sym_global, ACTIONS 63),
    (anon_sym_nonlocal, ACTIONS 65), (anon_sym_exec, ACTIONS 67), (anon_sym_type, ACTIONS 69),
    (anon_sym_class, ACTIONS 121), (anon_sym_struct, ACTIONS 121), (anon_sym_mut, ACTIONS 73),
    (anon_sym_out, ACTIONS 73), (anon_sym_trait, ACTIONS 123), (anon_sym_AT, ACTIONS 77),
    (anon_sym_DASH, ACTIONS 79), (anon_sym_PLUS, ACTIONS 79), (anon_sym_ref, ACTIONS 81),
    (anon_sym_var, ACTIONS 81), (anon_sym_not, ACTIONS 83), (anon_sym_TILDE, ACTIONS 79),
    (anon_sym_lambda, ACTIONS 85), (anon_sym_yield, ACTIONS 87), (sym_ellipsis, ACTIONS 89),
    (anon_sym___mlir_type, ACTIONS 91), (sym_integer, ACTIONS 93), (sym_float, ACTIONS 89),
    (anon_sym_await, ACTIONS 95), (sym_true, ACTIONS 93), (sym_false, ACTIONS 93),
    (sym_none, ACTIONS 93), (sym_comment, ACTIONS 3), (sym_line_continuation, ACTIONS 3),
    (sym__dedent, ACTIONS 325), (sym_string_start, ACTIONS 97)]"

definition parse_table_929 :: "(nat \<times> nat) list" where "parse_table_929 = [
    (sym__simple_statements, STATE 6540), (sym_import_statement, STATE 11814),
    (sym_future_import_statement, STATE 11814), (sym_import_from_statement, STATE 11814),
    (sym_print_statement, STATE 11814), (sym_assert_statement, STATE 11814),
    (sym_comptime_assert_statement, STATE 11814), (sym_expression_statement, STATE 11814),
    (sym_tuple_expression, STATE 12425), (sym_named_expression, STATE 7969),
    (sym__named_expression_lhs, STATE 12752), (sym_return_statement, STATE 11814),
    (sym_delete_statement, STATE 11814), (sym_raise_statement, STATE 11814),
    (sym_pass_statement, STATE 11814), (sym_break_statement, STATE 11814),
    (sym_continue_statement, STATE 11814), (sym_global_statement, STATE 11814),
    (sym_nonlocal_statement, STATE 11814), (sym_exec_statement, STATE 11814),
    (sym_type_alias_statement, STATE 11814), (sym_parameterized_alias_statement, STATE 11814),
    (sym_pattern, STATE 8086), (sym_tuple_pattern, STATE 8101), (sym_list_pattern, STATE 8101),
    (sym_list_splat_pattern, STATE 6795), (sym_as_pattern, STATE 7969),
    (sym_expression, STATE 9623), (sym_primary_expression, STATE 7326),
    (sym_comptime_expression, STATE 7017), (sym_transfer_expression, STATE 7017),
    (sym_not_operator, STATE 7969), (sym_boolean_operator, STATE 7969),
    (sym_binary_operator, STATE 7017), (sym_unary_operator, STATE 7017),
    (sym_comparison_operator, STATE 7969), (sym_lambda, STATE 7969),
    (sym_assignment, STATE 12425), (sym_augmented_assignment, STATE 12425),
    (sym_pattern_list, STATE 8578), (sym_yield, STATE 12425), (sym_attribute, STATE 6796),
    (sym_subscript, STATE 6797), (sym_call, STATE 6768), (sym_type, STATE 10130),
    (sym_called_type, STATE 9093), (sym_function_type, STATE 9093), (sym_splat_type, STATE 9093),
    (sym_generic_type, STATE 8287), (sym_union_type, STATE 9093),
    (sym_intersection_type, STATE 9093), (sym__intersection_operand, STATE 12294),
    (sym_constrained_type, STATE 9093), (sym_member_type, STATE 8165),
    (sym_mlir_type, STATE 7017), (sym_list, STATE 7017), (sym_set, STATE 7017),
    (sym_tuple, STATE 7017), (sym_dictionary, STATE 7017), (sym_struct_literal, STATE 7017),
    (sym_list_comprehension, STATE 7017), (sym_dictionary_comprehension, STATE 7017),
    (sym_set_comprehension, STATE 7017), (sym_generator_expression, STATE 7017),
    (sym_parenthesized_expression, STATE 7017), (sym_conditional_expression, STATE 7969),
    (sym_concatenated_string, STATE 7017), (sym_string, STATE 6729), (sym_await, STATE 7017),
    (sym_identifier, ACTIONS 327), (anon_sym_import, ACTIONS 11), (anon_sym_from, ACTIONS 13),
    (anon_sym_LPAREN, ACTIONS 329), (anon_sym_STAR, ACTIONS 331), (anon_sym_print, ACTIONS 333),
    (anon_sym_comptime, ACTIONS 335), (anon_sym_assert, ACTIONS 23),
    (anon_sym___comptime_assert, ACTIONS 25), (anon_sym_return, ACTIONS 27),
    (anon_sym_del, ACTIONS 29), (anon_sym_raise, ACTIONS 31), (anon_sym_pass, ACTIONS 33),
    (anon_sym_break, ACTIONS 35), (anon_sym_continue, ACTIONS 37), (anon_sym_match, ACTIONS 337),
    (anon_sym_async, ACTIONS 339), (anon_sym_def, ACTIONS 341), (anon_sym_LBRACK, ACTIONS 343),
    (anon_sym_LBRACE, ACTIONS 61), (anon_sym_STAR_STAR, ACTIONS 345),
    (anon_sym_global, ACTIONS 63), (anon_sym_nonlocal, ACTIONS 65), (anon_sym_exec, ACTIONS 347),
    (anon_sym_type, ACTIONS 349), (anon_sym_mut, ACTIONS 339), (anon_sym_out, ACTIONS 339),
    (anon_sym_DASH, ACTIONS 79), (anon_sym_PLUS, ACTIONS 79), (anon_sym_ref, ACTIONS 81),
    (anon_sym_var, ACTIONS 81), (anon_sym_not, ACTIONS 83), (anon_sym_TILDE, ACTIONS 79),
    (anon_sym_lambda, ACTIONS 85), (anon_sym_yield, ACTIONS 87), (sym_ellipsis, ACTIONS 89),
    (anon_sym___mlir_type, ACTIONS 91), (sym_integer, ACTIONS 93), (sym_float, ACTIONS 89),
    (anon_sym_await, ACTIONS 351), (sym_true, ACTIONS 93), (sym_false, ACTIONS 93),
    (sym_none, ACTIONS 93), (sym_comment, ACTIONS 3), (sym_line_continuation, ACTIONS 3),
    (sym__newline, ACTIONS 353), (sym__indent, ACTIONS 355), (sym_string_start, ACTIONS 97)]"

definition parse_table_930 :: "(nat \<times> nat) list" where "parse_table_930 = [
    (sym__simple_statements, STATE 6117), (sym_import_statement, STATE 12239),
    (sym_future_import_statement, STATE 12239), (sym_import_from_statement, STATE 12239),
    (sym_print_statement, STATE 12239), (sym_assert_statement, STATE 12239),
    (sym_comptime_assert_statement, STATE 12239), (sym_expression_statement, STATE 12239),
    (sym_tuple_expression, STATE 12425), (sym_named_expression, STATE 7969),
    (sym__named_expression_lhs, STATE 12752), (sym_return_statement, STATE 12239),
    (sym_delete_statement, STATE 12239), (sym_raise_statement, STATE 12239),
    (sym_pass_statement, STATE 12239), (sym_break_statement, STATE 12239),
    (sym_continue_statement, STATE 12239), (sym_global_statement, STATE 12239),
    (sym_nonlocal_statement, STATE 12239), (sym_exec_statement, STATE 12239),
    (sym_type_alias_statement, STATE 12239), (sym_parameterized_alias_statement, STATE 12239),
    (sym_pattern, STATE 8086), (sym_tuple_pattern, STATE 8101), (sym_list_pattern, STATE 8101),
    (sym_list_splat_pattern, STATE 6795), (sym_as_pattern, STATE 7969),
    (sym_expression, STATE 9623), (sym_primary_expression, STATE 7326),
    (sym_comptime_expression, STATE 7017), (sym_transfer_expression, STATE 7017),
    (sym_not_operator, STATE 7969), (sym_boolean_operator, STATE 7969),
    (sym_binary_operator, STATE 7017), (sym_unary_operator, STATE 7017),
    (sym_comparison_operator, STATE 7969), (sym_lambda, STATE 7969),
    (sym_assignment, STATE 12425), (sym_augmented_assignment, STATE 12425),
    (sym_pattern_list, STATE 8578), (sym_yield, STATE 12425), (sym_attribute, STATE 6796),
    (sym_subscript, STATE 6797), (sym_call, STATE 6768), (sym_type, STATE 10130),
    (sym_called_type, STATE 9093), (sym_function_type, STATE 9093), (sym_splat_type, STATE 9093),
    (sym_generic_type, STATE 8287), (sym_union_type, STATE 9093),
    (sym_intersection_type, STATE 9093), (sym__intersection_operand, STATE 12294),
    (sym_constrained_type, STATE 9093), (sym_member_type, STATE 8165),
    (sym_mlir_type, STATE 7017), (sym_list, STATE 7017), (sym_set, STATE 7017),
    (sym_tuple, STATE 7017), (sym_dictionary, STATE 7017), (sym_struct_literal, STATE 7017),
    (sym_list_comprehension, STATE 7017), (sym_dictionary_comprehension, STATE 7017),
    (sym_set_comprehension, STATE 7017), (sym_generator_expression, STATE 7017),
    (sym_parenthesized_expression, STATE 7017), (sym_conditional_expression, STATE 7969),
    (sym_concatenated_string, STATE 7017), (sym_string, STATE 6729), (sym_await, STATE 7017),
    (sym_identifier, ACTIONS 327), (anon_sym_import, ACTIONS 11), (anon_sym_from, ACTIONS 13),
    (anon_sym_LPAREN, ACTIONS 329), (anon_sym_STAR, ACTIONS 331), (anon_sym_print, ACTIONS 333),
    (anon_sym_comptime, ACTIONS 335), (anon_sym_assert, ACTIONS 23),
    (anon_sym___comptime_assert, ACTIONS 25), (anon_sym_return, ACTIONS 27),
    (anon_sym_del, ACTIONS 29), (anon_sym_raise, ACTIONS 31), (anon_sym_pass, ACTIONS 33),
    (anon_sym_break, ACTIONS 35), (anon_sym_continue, ACTIONS 37), (anon_sym_match, ACTIONS 337),
    (anon_sym_async, ACTIONS 339), (anon_sym_def, ACTIONS 341), (anon_sym_LBRACK, ACTIONS 343),
    (anon_sym_LBRACE, ACTIONS 61), (anon_sym_STAR_STAR, ACTIONS 345),
    (anon_sym_global, ACTIONS 63), (anon_sym_nonlocal, ACTIONS 65), (anon_sym_exec, ACTIONS 347),
    (anon_sym_type, ACTIONS 349), (anon_sym_mut, ACTIONS 339), (anon_sym_out, ACTIONS 339),
    (anon_sym_DASH, ACTIONS 79), (anon_sym_PLUS, ACTIONS 79), (anon_sym_ref, ACTIONS 81),
    (anon_sym_var, ACTIONS 81), (anon_sym_not, ACTIONS 83), (anon_sym_TILDE, ACTIONS 79),
    (anon_sym_lambda, ACTIONS 85), (anon_sym_yield, ACTIONS 87), (sym_ellipsis, ACTIONS 89),
    (anon_sym___mlir_type, ACTIONS 91), (sym_integer, ACTIONS 93), (sym_float, ACTIONS 89),
    (anon_sym_await, ACTIONS 351), (sym_true, ACTIONS 93), (sym_false, ACTIONS 93),
    (sym_none, ACTIONS 93), (sym_comment, ACTIONS 3), (sym_line_continuation, ACTIONS 3),
    (sym__newline, ACTIONS 357), (sym__indent, ACTIONS 359), (sym_string_start, ACTIONS 97)]"

definition parse_table_931 :: "(nat \<times> nat) list" where "parse_table_931 = [
    (sym__simple_statements, STATE 6082), (sym_import_statement, STATE 11814),
    (sym_future_import_statement, STATE 11814), (sym_import_from_statement, STATE 11814),
    (sym_print_statement, STATE 11814), (sym_assert_statement, STATE 11814),
    (sym_comptime_assert_statement, STATE 11814), (sym_expression_statement, STATE 11814),
    (sym_tuple_expression, STATE 12425), (sym_named_expression, STATE 7969),
    (sym__named_expression_lhs, STATE 12752), (sym_return_statement, STATE 11814),
    (sym_delete_statement, STATE 11814), (sym_raise_statement, STATE 11814),
    (sym_pass_statement, STATE 11814), (sym_break_statement, STATE 11814),
    (sym_continue_statement, STATE 11814), (sym_global_statement, STATE 11814),
    (sym_nonlocal_statement, STATE 11814), (sym_exec_statement, STATE 11814),
    (sym_type_alias_statement, STATE 11814), (sym_parameterized_alias_statement, STATE 11814),
    (sym_pattern, STATE 8086), (sym_tuple_pattern, STATE 8101), (sym_list_pattern, STATE 8101),
    (sym_list_splat_pattern, STATE 6795), (sym_as_pattern, STATE 7969),
    (sym_expression, STATE 9623), (sym_primary_expression, STATE 7326),
    (sym_comptime_expression, STATE 7017), (sym_transfer_expression, STATE 7017),
    (sym_not_operator, STATE 7969), (sym_boolean_operator, STATE 7969),
    (sym_binary_operator, STATE 7017), (sym_unary_operator, STATE 7017),
    (sym_comparison_operator, STATE 7969), (sym_lambda, STATE 7969),
    (sym_assignment, STATE 12425), (sym_augmented_assignment, STATE 12425),
    (sym_pattern_list, STATE 8578), (sym_yield, STATE 12425), (sym_attribute, STATE 6796),
    (sym_subscript, STATE 6797), (sym_call, STATE 6768), (sym_type, STATE 10130),
    (sym_called_type, STATE 9093), (sym_function_type, STATE 9093), (sym_splat_type, STATE 9093),
    (sym_generic_type, STATE 8287), (sym_union_type, STATE 9093),
    (sym_intersection_type, STATE 9093), (sym__intersection_operand, STATE 12294),
    (sym_constrained_type, STATE 9093), (sym_member_type, STATE 8165),
    (sym_mlir_type, STATE 7017), (sym_list, STATE 7017), (sym_set, STATE 7017),
    (sym_tuple, STATE 7017), (sym_dictionary, STATE 7017), (sym_struct_literal, STATE 7017),
    (sym_list_comprehension, STATE 7017), (sym_dictionary_comprehension, STATE 7017),
    (sym_set_comprehension, STATE 7017), (sym_generator_expression, STATE 7017),
    (sym_parenthesized_expression, STATE 7017), (sym_conditional_expression, STATE 7969),
    (sym_concatenated_string, STATE 7017), (sym_string, STATE 6729), (sym_await, STATE 7017),
    (sym_identifier, ACTIONS 327), (anon_sym_import, ACTIONS 11), (anon_sym_from, ACTIONS 13),
    (anon_sym_LPAREN, ACTIONS 329), (anon_sym_STAR, ACTIONS 331), (anon_sym_print, ACTIONS 333),
    (anon_sym_comptime, ACTIONS 335), (anon_sym_assert, ACTIONS 23),
    (anon_sym___comptime_assert, ACTIONS 25), (anon_sym_return, ACTIONS 27),
    (anon_sym_del, ACTIONS 29), (anon_sym_raise, ACTIONS 31), (anon_sym_pass, ACTIONS 33),
    (anon_sym_break, ACTIONS 35), (anon_sym_continue, ACTIONS 37), (anon_sym_match, ACTIONS 337),
    (anon_sym_async, ACTIONS 339), (anon_sym_def, ACTIONS 341), (anon_sym_LBRACK, ACTIONS 343),
    (anon_sym_LBRACE, ACTIONS 61), (anon_sym_STAR_STAR, ACTIONS 345),
    (anon_sym_global, ACTIONS 63), (anon_sym_nonlocal, ACTIONS 65), (anon_sym_exec, ACTIONS 347),
    (anon_sym_type, ACTIONS 349), (anon_sym_mut, ACTIONS 339), (anon_sym_out, ACTIONS 339),
    (anon_sym_DASH, ACTIONS 79), (anon_sym_PLUS, ACTIONS 79), (anon_sym_ref, ACTIONS 81),
    (anon_sym_var, ACTIONS 81), (anon_sym_not, ACTIONS 83), (anon_sym_TILDE, ACTIONS 79),
    (anon_sym_lambda, ACTIONS 85), (anon_sym_yield, ACTIONS 87), (sym_ellipsis, ACTIONS 89),
    (anon_sym___mlir_type, ACTIONS 91), (sym_integer, ACTIONS 93), (sym_float, ACTIONS 89),
    (anon_sym_await, ACTIONS 351), (sym_true, ACTIONS 93), (sym_false, ACTIONS 93),
    (sym_none, ACTIONS 93), (sym_comment, ACTIONS 3), (sym_line_continuation, ACTIONS 3),
    (sym__newline, ACTIONS 361), (sym__indent, ACTIONS 363), (sym_string_start, ACTIONS 97)]"

definition parse_table_932 :: "(nat \<times> nat) list" where "parse_table_932 = [
    (sym__simple_statements, STATE 6086), (sym_import_statement, STATE 11814),
    (sym_future_import_statement, STATE 11814), (sym_import_from_statement, STATE 11814),
    (sym_print_statement, STATE 11814), (sym_assert_statement, STATE 11814),
    (sym_comptime_assert_statement, STATE 11814), (sym_expression_statement, STATE 11814),
    (sym_tuple_expression, STATE 12425), (sym_named_expression, STATE 7969),
    (sym__named_expression_lhs, STATE 12752), (sym_return_statement, STATE 11814),
    (sym_delete_statement, STATE 11814), (sym_raise_statement, STATE 11814),
    (sym_pass_statement, STATE 11814), (sym_break_statement, STATE 11814),
    (sym_continue_statement, STATE 11814), (sym_global_statement, STATE 11814),
    (sym_nonlocal_statement, STATE 11814), (sym_exec_statement, STATE 11814),
    (sym_type_alias_statement, STATE 11814), (sym_parameterized_alias_statement, STATE 11814),
    (sym_pattern, STATE 8086), (sym_tuple_pattern, STATE 8101), (sym_list_pattern, STATE 8101),
    (sym_list_splat_pattern, STATE 6795), (sym_as_pattern, STATE 7969),
    (sym_expression, STATE 9623), (sym_primary_expression, STATE 7326),
    (sym_comptime_expression, STATE 7017), (sym_transfer_expression, STATE 7017),
    (sym_not_operator, STATE 7969), (sym_boolean_operator, STATE 7969),
    (sym_binary_operator, STATE 7017), (sym_unary_operator, STATE 7017),
    (sym_comparison_operator, STATE 7969), (sym_lambda, STATE 7969),
    (sym_assignment, STATE 12425), (sym_augmented_assignment, STATE 12425),
    (sym_pattern_list, STATE 8578), (sym_yield, STATE 12425), (sym_attribute, STATE 6796),
    (sym_subscript, STATE 6797), (sym_call, STATE 6768), (sym_type, STATE 10130),
    (sym_called_type, STATE 9093), (sym_function_type, STATE 9093), (sym_splat_type, STATE 9093),
    (sym_generic_type, STATE 8287), (sym_union_type, STATE 9093),
    (sym_intersection_type, STATE 9093), (sym__intersection_operand, STATE 12294),
    (sym_constrained_type, STATE 9093), (sym_member_type, STATE 8165),
    (sym_mlir_type, STATE 7017), (sym_list, STATE 7017), (sym_set, STATE 7017),
    (sym_tuple, STATE 7017), (sym_dictionary, STATE 7017), (sym_struct_literal, STATE 7017),
    (sym_list_comprehension, STATE 7017), (sym_dictionary_comprehension, STATE 7017),
    (sym_set_comprehension, STATE 7017), (sym_generator_expression, STATE 7017),
    (sym_parenthesized_expression, STATE 7017), (sym_conditional_expression, STATE 7969),
    (sym_concatenated_string, STATE 7017), (sym_string, STATE 6729), (sym_await, STATE 7017),
    (sym_identifier, ACTIONS 327), (anon_sym_import, ACTIONS 11), (anon_sym_from, ACTIONS 13),
    (anon_sym_LPAREN, ACTIONS 329), (anon_sym_STAR, ACTIONS 331), (anon_sym_print, ACTIONS 333),
    (anon_sym_comptime, ACTIONS 335), (anon_sym_assert, ACTIONS 23),
    (anon_sym___comptime_assert, ACTIONS 25), (anon_sym_return, ACTIONS 27),
    (anon_sym_del, ACTIONS 29), (anon_sym_raise, ACTIONS 31), (anon_sym_pass, ACTIONS 33),
    (anon_sym_break, ACTIONS 35), (anon_sym_continue, ACTIONS 37), (anon_sym_match, ACTIONS 337),
    (anon_sym_async, ACTIONS 339), (anon_sym_def, ACTIONS 341), (anon_sym_LBRACK, ACTIONS 343),
    (anon_sym_LBRACE, ACTIONS 61), (anon_sym_STAR_STAR, ACTIONS 345),
    (anon_sym_global, ACTIONS 63), (anon_sym_nonlocal, ACTIONS 65), (anon_sym_exec, ACTIONS 347),
    (anon_sym_type, ACTIONS 349), (anon_sym_mut, ACTIONS 339), (anon_sym_out, ACTIONS 339),
    (anon_sym_DASH, ACTIONS 79), (anon_sym_PLUS, ACTIONS 79), (anon_sym_ref, ACTIONS 81),
    (anon_sym_var, ACTIONS 81), (anon_sym_not, ACTIONS 83), (anon_sym_TILDE, ACTIONS 79),
    (anon_sym_lambda, ACTIONS 85), (anon_sym_yield, ACTIONS 87), (sym_ellipsis, ACTIONS 89),
    (anon_sym___mlir_type, ACTIONS 91), (sym_integer, ACTIONS 93), (sym_float, ACTIONS 89),
    (anon_sym_await, ACTIONS 351), (sym_true, ACTIONS 93), (sym_false, ACTIONS 93),
    (sym_none, ACTIONS 93), (sym_comment, ACTIONS 3), (sym_line_continuation, ACTIONS 3),
    (sym__newline, ACTIONS 365), (sym__indent, ACTIONS 367), (sym_string_start, ACTIONS 97)]"

definition parse_table_933 :: "(nat \<times> nat) list" where "parse_table_933 = [
    (sym__simple_statements, STATE 4727), (sym_import_statement, STATE 12239),
    (sym_future_import_statement, STATE 12239), (sym_import_from_statement, STATE 12239),
    (sym_print_statement, STATE 12239), (sym_assert_statement, STATE 12239),
    (sym_comptime_assert_statement, STATE 12239), (sym_expression_statement, STATE 12239),
    (sym_tuple_expression, STATE 12425), (sym_named_expression, STATE 7969),
    (sym__named_expression_lhs, STATE 12752), (sym_return_statement, STATE 12239),
    (sym_delete_statement, STATE 12239), (sym_raise_statement, STATE 12239),
    (sym_pass_statement, STATE 12239), (sym_break_statement, STATE 12239),
    (sym_continue_statement, STATE 12239), (sym_global_statement, STATE 12239),
    (sym_nonlocal_statement, STATE 12239), (sym_exec_statement, STATE 12239),
    (sym_type_alias_statement, STATE 12239), (sym_parameterized_alias_statement, STATE 12239),
    (sym_pattern, STATE 8086), (sym_tuple_pattern, STATE 8101), (sym_list_pattern, STATE 8101),
    (sym_list_splat_pattern, STATE 6795), (sym_as_pattern, STATE 7969),
    (sym_expression, STATE 9623), (sym_primary_expression, STATE 7326),
    (sym_comptime_expression, STATE 7017), (sym_transfer_expression, STATE 7017),
    (sym_not_operator, STATE 7969), (sym_boolean_operator, STATE 7969),
    (sym_binary_operator, STATE 7017), (sym_unary_operator, STATE 7017),
    (sym_comparison_operator, STATE 7969), (sym_lambda, STATE 7969),
    (sym_assignment, STATE 12425), (sym_augmented_assignment, STATE 12425),
    (sym_pattern_list, STATE 8578), (sym_yield, STATE 12425), (sym_attribute, STATE 6796),
    (sym_subscript, STATE 6797), (sym_call, STATE 6768), (sym_type, STATE 10130),
    (sym_called_type, STATE 9093), (sym_function_type, STATE 9093), (sym_splat_type, STATE 9093),
    (sym_generic_type, STATE 8287), (sym_union_type, STATE 9093),
    (sym_intersection_type, STATE 9093), (sym__intersection_operand, STATE 12294),
    (sym_constrained_type, STATE 9093), (sym_member_type, STATE 8165),
    (sym_mlir_type, STATE 7017), (sym_list, STATE 7017), (sym_set, STATE 7017),
    (sym_tuple, STATE 7017), (sym_dictionary, STATE 7017), (sym_struct_literal, STATE 7017),
    (sym_list_comprehension, STATE 7017), (sym_dictionary_comprehension, STATE 7017),
    (sym_set_comprehension, STATE 7017), (sym_generator_expression, STATE 7017),
    (sym_parenthesized_expression, STATE 7017), (sym_conditional_expression, STATE 7969),
    (sym_concatenated_string, STATE 7017), (sym_string, STATE 6729), (sym_await, STATE 7017),
    (sym_identifier, ACTIONS 327), (anon_sym_import, ACTIONS 11), (anon_sym_from, ACTIONS 13),
    (anon_sym_LPAREN, ACTIONS 329), (anon_sym_STAR, ACTIONS 331), (anon_sym_print, ACTIONS 333),
    (anon_sym_comptime, ACTIONS 335), (anon_sym_assert, ACTIONS 23),
    (anon_sym___comptime_assert, ACTIONS 25), (anon_sym_return, ACTIONS 27),
    (anon_sym_del, ACTIONS 29), (anon_sym_raise, ACTIONS 31), (anon_sym_pass, ACTIONS 33),
    (anon_sym_break, ACTIONS 35), (anon_sym_continue, ACTIONS 37), (anon_sym_match, ACTIONS 337),
    (anon_sym_async, ACTIONS 339), (anon_sym_def, ACTIONS 341), (anon_sym_LBRACK, ACTIONS 343),
    (anon_sym_LBRACE, ACTIONS 61), (anon_sym_STAR_STAR, ACTIONS 345),
    (anon_sym_global, ACTIONS 63), (anon_sym_nonlocal, ACTIONS 65), (anon_sym_exec, ACTIONS 347),
    (anon_sym_type, ACTIONS 349), (anon_sym_mut, ACTIONS 339), (anon_sym_out, ACTIONS 339),
    (anon_sym_DASH, ACTIONS 79), (anon_sym_PLUS, ACTIONS 79), (anon_sym_ref, ACTIONS 81),
    (anon_sym_var, ACTIONS 81), (anon_sym_not, ACTIONS 83), (anon_sym_TILDE, ACTIONS 79),
    (anon_sym_lambda, ACTIONS 85), (anon_sym_yield, ACTIONS 87), (sym_ellipsis, ACTIONS 89),
    (anon_sym___mlir_type, ACTIONS 91), (sym_integer, ACTIONS 93), (sym_float, ACTIONS 89),
    (anon_sym_await, ACTIONS 351), (sym_true, ACTIONS 93), (sym_false, ACTIONS 93),
    (sym_none, ACTIONS 93), (sym_comment, ACTIONS 3), (sym_line_continuation, ACTIONS 3),
    (sym__newline, ACTIONS 369), (sym__indent, ACTIONS 371), (sym_string_start, ACTIONS 97)]"

definition parse_table_934 :: "(nat \<times> nat) list" where "parse_table_934 = [
    (sym__simple_statements, STATE 6099), (sym_import_statement, STATE 11814),
    (sym_future_import_statement, STATE 11814), (sym_import_from_statement, STATE 11814),
    (sym_print_statement, STATE 11814), (sym_assert_statement, STATE 11814),
    (sym_comptime_assert_statement, STATE 11814), (sym_expression_statement, STATE 11814),
    (sym_tuple_expression, STATE 12425), (sym_named_expression, STATE 7969),
    (sym__named_expression_lhs, STATE 12752), (sym_return_statement, STATE 11814),
    (sym_delete_statement, STATE 11814), (sym_raise_statement, STATE 11814),
    (sym_pass_statement, STATE 11814), (sym_break_statement, STATE 11814),
    (sym_continue_statement, STATE 11814), (sym_global_statement, STATE 11814),
    (sym_nonlocal_statement, STATE 11814), (sym_exec_statement, STATE 11814),
    (sym_type_alias_statement, STATE 11814), (sym_parameterized_alias_statement, STATE 11814),
    (sym_pattern, STATE 8086), (sym_tuple_pattern, STATE 8101), (sym_list_pattern, STATE 8101),
    (sym_list_splat_pattern, STATE 6795), (sym_as_pattern, STATE 7969),
    (sym_expression, STATE 9623), (sym_primary_expression, STATE 7326),
    (sym_comptime_expression, STATE 7017), (sym_transfer_expression, STATE 7017),
    (sym_not_operator, STATE 7969), (sym_boolean_operator, STATE 7969),
    (sym_binary_operator, STATE 7017), (sym_unary_operator, STATE 7017),
    (sym_comparison_operator, STATE 7969), (sym_lambda, STATE 7969),
    (sym_assignment, STATE 12425), (sym_augmented_assignment, STATE 12425),
    (sym_pattern_list, STATE 8578), (sym_yield, STATE 12425), (sym_attribute, STATE 6796),
    (sym_subscript, STATE 6797), (sym_call, STATE 6768), (sym_type, STATE 10130),
    (sym_called_type, STATE 9093), (sym_function_type, STATE 9093), (sym_splat_type, STATE 9093),
    (sym_generic_type, STATE 8287), (sym_union_type, STATE 9093),
    (sym_intersection_type, STATE 9093), (sym__intersection_operand, STATE 12294),
    (sym_constrained_type, STATE 9093), (sym_member_type, STATE 8165),
    (sym_mlir_type, STATE 7017), (sym_list, STATE 7017), (sym_set, STATE 7017),
    (sym_tuple, STATE 7017), (sym_dictionary, STATE 7017), (sym_struct_literal, STATE 7017),
    (sym_list_comprehension, STATE 7017), (sym_dictionary_comprehension, STATE 7017),
    (sym_set_comprehension, STATE 7017), (sym_generator_expression, STATE 7017),
    (sym_parenthesized_expression, STATE 7017), (sym_conditional_expression, STATE 7969),
    (sym_concatenated_string, STATE 7017), (sym_string, STATE 6729), (sym_await, STATE 7017),
    (sym_identifier, ACTIONS 327), (anon_sym_import, ACTIONS 11), (anon_sym_from, ACTIONS 13),
    (anon_sym_LPAREN, ACTIONS 329), (anon_sym_STAR, ACTIONS 331), (anon_sym_print, ACTIONS 333),
    (anon_sym_comptime, ACTIONS 335), (anon_sym_assert, ACTIONS 23),
    (anon_sym___comptime_assert, ACTIONS 25), (anon_sym_return, ACTIONS 27),
    (anon_sym_del, ACTIONS 29), (anon_sym_raise, ACTIONS 31), (anon_sym_pass, ACTIONS 33),
    (anon_sym_break, ACTIONS 35), (anon_sym_continue, ACTIONS 37), (anon_sym_match, ACTIONS 337),
    (anon_sym_async, ACTIONS 339), (anon_sym_def, ACTIONS 341), (anon_sym_LBRACK, ACTIONS 343),
    (anon_sym_LBRACE, ACTIONS 61), (anon_sym_STAR_STAR, ACTIONS 345),
    (anon_sym_global, ACTIONS 63), (anon_sym_nonlocal, ACTIONS 65), (anon_sym_exec, ACTIONS 347),
    (anon_sym_type, ACTIONS 349), (anon_sym_mut, ACTIONS 339), (anon_sym_out, ACTIONS 339),
    (anon_sym_DASH, ACTIONS 79), (anon_sym_PLUS, ACTIONS 79), (anon_sym_ref, ACTIONS 81),
    (anon_sym_var, ACTIONS 81), (anon_sym_not, ACTIONS 83), (anon_sym_TILDE, ACTIONS 79),
    (anon_sym_lambda, ACTIONS 85), (anon_sym_yield, ACTIONS 87), (sym_ellipsis, ACTIONS 89),
    (anon_sym___mlir_type, ACTIONS 91), (sym_integer, ACTIONS 93), (sym_float, ACTIONS 89),
    (anon_sym_await, ACTIONS 351), (sym_true, ACTIONS 93), (sym_false, ACTIONS 93),
    (sym_none, ACTIONS 93), (sym_comment, ACTIONS 3), (sym_line_continuation, ACTIONS 3),
    (sym__newline, ACTIONS 373), (sym__indent, ACTIONS 375), (sym_string_start, ACTIONS 97)]"

definition parse_table_935 :: "(nat \<times> nat) list" where "parse_table_935 = [
    (sym__simple_statements, STATE 5567), (sym_import_statement, STATE 12239),
    (sym_future_import_statement, STATE 12239), (sym_import_from_statement, STATE 12239),
    (sym_print_statement, STATE 12239), (sym_assert_statement, STATE 12239),
    (sym_comptime_assert_statement, STATE 12239), (sym_expression_statement, STATE 12239),
    (sym_tuple_expression, STATE 12425), (sym_named_expression, STATE 7969),
    (sym__named_expression_lhs, STATE 12752), (sym_return_statement, STATE 12239),
    (sym_delete_statement, STATE 12239), (sym_raise_statement, STATE 12239),
    (sym_pass_statement, STATE 12239), (sym_break_statement, STATE 12239),
    (sym_continue_statement, STATE 12239), (sym_global_statement, STATE 12239),
    (sym_nonlocal_statement, STATE 12239), (sym_exec_statement, STATE 12239),
    (sym_type_alias_statement, STATE 12239), (sym_parameterized_alias_statement, STATE 12239),
    (sym_pattern, STATE 8086), (sym_tuple_pattern, STATE 8101), (sym_list_pattern, STATE 8101),
    (sym_list_splat_pattern, STATE 6795), (sym_as_pattern, STATE 7969),
    (sym_expression, STATE 9623), (sym_primary_expression, STATE 7326),
    (sym_comptime_expression, STATE 7017), (sym_transfer_expression, STATE 7017),
    (sym_not_operator, STATE 7969), (sym_boolean_operator, STATE 7969),
    (sym_binary_operator, STATE 7017), (sym_unary_operator, STATE 7017),
    (sym_comparison_operator, STATE 7969), (sym_lambda, STATE 7969),
    (sym_assignment, STATE 12425), (sym_augmented_assignment, STATE 12425),
    (sym_pattern_list, STATE 8578), (sym_yield, STATE 12425), (sym_attribute, STATE 6796),
    (sym_subscript, STATE 6797), (sym_call, STATE 6768), (sym_type, STATE 10130),
    (sym_called_type, STATE 9093), (sym_function_type, STATE 9093), (sym_splat_type, STATE 9093),
    (sym_generic_type, STATE 8287), (sym_union_type, STATE 9093),
    (sym_intersection_type, STATE 9093), (sym__intersection_operand, STATE 12294),
    (sym_constrained_type, STATE 9093), (sym_member_type, STATE 8165),
    (sym_mlir_type, STATE 7017), (sym_list, STATE 7017), (sym_set, STATE 7017),
    (sym_tuple, STATE 7017), (sym_dictionary, STATE 7017), (sym_struct_literal, STATE 7017),
    (sym_list_comprehension, STATE 7017), (sym_dictionary_comprehension, STATE 7017),
    (sym_set_comprehension, STATE 7017), (sym_generator_expression, STATE 7017),
    (sym_parenthesized_expression, STATE 7017), (sym_conditional_expression, STATE 7969),
    (sym_concatenated_string, STATE 7017), (sym_string, STATE 6729), (sym_await, STATE 7017),
    (sym_identifier, ACTIONS 327), (anon_sym_import, ACTIONS 11), (anon_sym_from, ACTIONS 13),
    (anon_sym_LPAREN, ACTIONS 329), (anon_sym_STAR, ACTIONS 331), (anon_sym_print, ACTIONS 333),
    (anon_sym_comptime, ACTIONS 335), (anon_sym_assert, ACTIONS 23),
    (anon_sym___comptime_assert, ACTIONS 25), (anon_sym_return, ACTIONS 27),
    (anon_sym_del, ACTIONS 29), (anon_sym_raise, ACTIONS 31), (anon_sym_pass, ACTIONS 33),
    (anon_sym_break, ACTIONS 35), (anon_sym_continue, ACTIONS 37), (anon_sym_match, ACTIONS 337),
    (anon_sym_async, ACTIONS 339), (anon_sym_def, ACTIONS 341), (anon_sym_LBRACK, ACTIONS 343),
    (anon_sym_LBRACE, ACTIONS 61), (anon_sym_STAR_STAR, ACTIONS 345),
    (anon_sym_global, ACTIONS 63), (anon_sym_nonlocal, ACTIONS 65), (anon_sym_exec, ACTIONS 347),
    (anon_sym_type, ACTIONS 349), (anon_sym_mut, ACTIONS 339), (anon_sym_out, ACTIONS 339),
    (anon_sym_DASH, ACTIONS 79), (anon_sym_PLUS, ACTIONS 79), (anon_sym_ref, ACTIONS 81),
    (anon_sym_var, ACTIONS 81), (anon_sym_not, ACTIONS 83), (anon_sym_TILDE, ACTIONS 79),
    (anon_sym_lambda, ACTIONS 85), (anon_sym_yield, ACTIONS 87), (sym_ellipsis, ACTIONS 89),
    (anon_sym___mlir_type, ACTIONS 91), (sym_integer, ACTIONS 93), (sym_float, ACTIONS 89),
    (anon_sym_await, ACTIONS 351), (sym_true, ACTIONS 93), (sym_false, ACTIONS 93),
    (sym_none, ACTIONS 93), (sym_comment, ACTIONS 3), (sym_line_continuation, ACTIONS 3),
    (sym__newline, ACTIONS 377), (sym__indent, ACTIONS 379), (sym_string_start, ACTIONS 97)]"

definition parse_table_936 :: "(nat \<times> nat) list" where "parse_table_936 = [
    (sym__simple_statements, STATE 5492), (sym_import_statement, STATE 12239),
    (sym_future_import_statement, STATE 12239), (sym_import_from_statement, STATE 12239),
    (sym_print_statement, STATE 12239), (sym_assert_statement, STATE 12239),
    (sym_comptime_assert_statement, STATE 12239), (sym_expression_statement, STATE 12239),
    (sym_tuple_expression, STATE 12425), (sym_named_expression, STATE 7969),
    (sym__named_expression_lhs, STATE 12752), (sym_return_statement, STATE 12239),
    (sym_delete_statement, STATE 12239), (sym_raise_statement, STATE 12239),
    (sym_pass_statement, STATE 12239), (sym_break_statement, STATE 12239),
    (sym_continue_statement, STATE 12239), (sym_global_statement, STATE 12239),
    (sym_nonlocal_statement, STATE 12239), (sym_exec_statement, STATE 12239),
    (sym_type_alias_statement, STATE 12239), (sym_parameterized_alias_statement, STATE 12239),
    (sym_pattern, STATE 8086), (sym_tuple_pattern, STATE 8101), (sym_list_pattern, STATE 8101),
    (sym_list_splat_pattern, STATE 6795), (sym_as_pattern, STATE 7969),
    (sym_expression, STATE 9623), (sym_primary_expression, STATE 7326),
    (sym_comptime_expression, STATE 7017), (sym_transfer_expression, STATE 7017),
    (sym_not_operator, STATE 7969), (sym_boolean_operator, STATE 7969),
    (sym_binary_operator, STATE 7017), (sym_unary_operator, STATE 7017),
    (sym_comparison_operator, STATE 7969), (sym_lambda, STATE 7969),
    (sym_assignment, STATE 12425), (sym_augmented_assignment, STATE 12425),
    (sym_pattern_list, STATE 8578), (sym_yield, STATE 12425), (sym_attribute, STATE 6796),
    (sym_subscript, STATE 6797), (sym_call, STATE 6768), (sym_type, STATE 10130),
    (sym_called_type, STATE 9093), (sym_function_type, STATE 9093), (sym_splat_type, STATE 9093),
    (sym_generic_type, STATE 8287), (sym_union_type, STATE 9093),
    (sym_intersection_type, STATE 9093), (sym__intersection_operand, STATE 12294),
    (sym_constrained_type, STATE 9093), (sym_member_type, STATE 8165),
    (sym_mlir_type, STATE 7017), (sym_list, STATE 7017), (sym_set, STATE 7017),
    (sym_tuple, STATE 7017), (sym_dictionary, STATE 7017), (sym_struct_literal, STATE 7017),
    (sym_list_comprehension, STATE 7017), (sym_dictionary_comprehension, STATE 7017),
    (sym_set_comprehension, STATE 7017), (sym_generator_expression, STATE 7017),
    (sym_parenthesized_expression, STATE 7017), (sym_conditional_expression, STATE 7969),
    (sym_concatenated_string, STATE 7017), (sym_string, STATE 6729), (sym_await, STATE 7017),
    (sym_identifier, ACTIONS 327), (anon_sym_import, ACTIONS 11), (anon_sym_from, ACTIONS 13),
    (anon_sym_LPAREN, ACTIONS 329), (anon_sym_STAR, ACTIONS 331), (anon_sym_print, ACTIONS 333),
    (anon_sym_comptime, ACTIONS 335), (anon_sym_assert, ACTIONS 23),
    (anon_sym___comptime_assert, ACTIONS 25), (anon_sym_return, ACTIONS 27),
    (anon_sym_del, ACTIONS 29), (anon_sym_raise, ACTIONS 31), (anon_sym_pass, ACTIONS 33),
    (anon_sym_break, ACTIONS 35), (anon_sym_continue, ACTIONS 37), (anon_sym_match, ACTIONS 337),
    (anon_sym_async, ACTIONS 339), (anon_sym_def, ACTIONS 341), (anon_sym_LBRACK, ACTIONS 343),
    (anon_sym_LBRACE, ACTIONS 61), (anon_sym_STAR_STAR, ACTIONS 345),
    (anon_sym_global, ACTIONS 63), (anon_sym_nonlocal, ACTIONS 65), (anon_sym_exec, ACTIONS 347),
    (anon_sym_type, ACTIONS 349), (anon_sym_mut, ACTIONS 339), (anon_sym_out, ACTIONS 339),
    (anon_sym_DASH, ACTIONS 79), (anon_sym_PLUS, ACTIONS 79), (anon_sym_ref, ACTIONS 81),
    (anon_sym_var, ACTIONS 81), (anon_sym_not, ACTIONS 83), (anon_sym_TILDE, ACTIONS 79),
    (anon_sym_lambda, ACTIONS 85), (anon_sym_yield, ACTIONS 87), (sym_ellipsis, ACTIONS 89),
    (anon_sym___mlir_type, ACTIONS 91), (sym_integer, ACTIONS 93), (sym_float, ACTIONS 89),
    (anon_sym_await, ACTIONS 351), (sym_true, ACTIONS 93), (sym_false, ACTIONS 93),
    (sym_none, ACTIONS 93), (sym_comment, ACTIONS 3), (sym_line_continuation, ACTIONS 3),
    (sym__newline, ACTIONS 381), (sym__indent, ACTIONS 383), (sym_string_start, ACTIONS 97)]"

definition parse_table_937 :: "(nat \<times> nat) list" where "parse_table_937 = [
    (sym__simple_statements, STATE 6524), (sym_import_statement, STATE 12239),
    (sym_future_import_statement, STATE 12239), (sym_import_from_statement, STATE 12239),
    (sym_print_statement, STATE 12239), (sym_assert_statement, STATE 12239),
    (sym_comptime_assert_statement, STATE 12239), (sym_expression_statement, STATE 12239),
    (sym_tuple_expression, STATE 12425), (sym_named_expression, STATE 7969),
    (sym__named_expression_lhs, STATE 12752), (sym_return_statement, STATE 12239),
    (sym_delete_statement, STATE 12239), (sym_raise_statement, STATE 12239),
    (sym_pass_statement, STATE 12239), (sym_break_statement, STATE 12239),
    (sym_continue_statement, STATE 12239), (sym_global_statement, STATE 12239),
    (sym_nonlocal_statement, STATE 12239), (sym_exec_statement, STATE 12239),
    (sym_type_alias_statement, STATE 12239), (sym_parameterized_alias_statement, STATE 12239),
    (sym_pattern, STATE 8086), (sym_tuple_pattern, STATE 8101), (sym_list_pattern, STATE 8101),
    (sym_list_splat_pattern, STATE 6795), (sym_as_pattern, STATE 7969),
    (sym_expression, STATE 9623), (sym_primary_expression, STATE 7326),
    (sym_comptime_expression, STATE 7017), (sym_transfer_expression, STATE 7017),
    (sym_not_operator, STATE 7969), (sym_boolean_operator, STATE 7969),
    (sym_binary_operator, STATE 7017), (sym_unary_operator, STATE 7017),
    (sym_comparison_operator, STATE 7969), (sym_lambda, STATE 7969),
    (sym_assignment, STATE 12425), (sym_augmented_assignment, STATE 12425),
    (sym_pattern_list, STATE 8578), (sym_yield, STATE 12425), (sym_attribute, STATE 6796),
    (sym_subscript, STATE 6797), (sym_call, STATE 6768), (sym_type, STATE 10130),
    (sym_called_type, STATE 9093), (sym_function_type, STATE 9093), (sym_splat_type, STATE 9093),
    (sym_generic_type, STATE 8287), (sym_union_type, STATE 9093),
    (sym_intersection_type, STATE 9093), (sym__intersection_operand, STATE 12294),
    (sym_constrained_type, STATE 9093), (sym_member_type, STATE 8165),
    (sym_mlir_type, STATE 7017), (sym_list, STATE 7017), (sym_set, STATE 7017),
    (sym_tuple, STATE 7017), (sym_dictionary, STATE 7017), (sym_struct_literal, STATE 7017),
    (sym_list_comprehension, STATE 7017), (sym_dictionary_comprehension, STATE 7017),
    (sym_set_comprehension, STATE 7017), (sym_generator_expression, STATE 7017),
    (sym_parenthesized_expression, STATE 7017), (sym_conditional_expression, STATE 7969),
    (sym_concatenated_string, STATE 7017), (sym_string, STATE 6729), (sym_await, STATE 7017),
    (sym_identifier, ACTIONS 327), (anon_sym_import, ACTIONS 11), (anon_sym_from, ACTIONS 13),
    (anon_sym_LPAREN, ACTIONS 329), (anon_sym_STAR, ACTIONS 331), (anon_sym_print, ACTIONS 333),
    (anon_sym_comptime, ACTIONS 335), (anon_sym_assert, ACTIONS 23),
    (anon_sym___comptime_assert, ACTIONS 25), (anon_sym_return, ACTIONS 27),
    (anon_sym_del, ACTIONS 29), (anon_sym_raise, ACTIONS 31), (anon_sym_pass, ACTIONS 33),
    (anon_sym_break, ACTIONS 35), (anon_sym_continue, ACTIONS 37), (anon_sym_match, ACTIONS 337),
    (anon_sym_async, ACTIONS 339), (anon_sym_def, ACTIONS 341), (anon_sym_LBRACK, ACTIONS 343),
    (anon_sym_LBRACE, ACTIONS 61), (anon_sym_STAR_STAR, ACTIONS 345),
    (anon_sym_global, ACTIONS 63), (anon_sym_nonlocal, ACTIONS 65), (anon_sym_exec, ACTIONS 347),
    (anon_sym_type, ACTIONS 349), (anon_sym_mut, ACTIONS 339), (anon_sym_out, ACTIONS 339),
    (anon_sym_DASH, ACTIONS 79), (anon_sym_PLUS, ACTIONS 79), (anon_sym_ref, ACTIONS 81),
    (anon_sym_var, ACTIONS 81), (anon_sym_not, ACTIONS 83), (anon_sym_TILDE, ACTIONS 79),
    (anon_sym_lambda, ACTIONS 85), (anon_sym_yield, ACTIONS 87), (sym_ellipsis, ACTIONS 89),
    (anon_sym___mlir_type, ACTIONS 91), (sym_integer, ACTIONS 93), (sym_float, ACTIONS 89),
    (anon_sym_await, ACTIONS 351), (sym_true, ACTIONS 93), (sym_false, ACTIONS 93),
    (sym_none, ACTIONS 93), (sym_comment, ACTIONS 3), (sym_line_continuation, ACTIONS 3),
    (sym__newline, ACTIONS 385), (sym__indent, ACTIONS 387), (sym_string_start, ACTIONS 97)]"

definition parse_table_938 :: "(nat \<times> nat) list" where "parse_table_938 = [
    (sym__simple_statements, STATE 6106), (sym_import_statement, STATE 11814),
    (sym_future_import_statement, STATE 11814), (sym_import_from_statement, STATE 11814),
    (sym_print_statement, STATE 11814), (sym_assert_statement, STATE 11814),
    (sym_comptime_assert_statement, STATE 11814), (sym_expression_statement, STATE 11814),
    (sym_tuple_expression, STATE 12425), (sym_named_expression, STATE 7969),
    (sym__named_expression_lhs, STATE 12752), (sym_return_statement, STATE 11814),
    (sym_delete_statement, STATE 11814), (sym_raise_statement, STATE 11814),
    (sym_pass_statement, STATE 11814), (sym_break_statement, STATE 11814),
    (sym_continue_statement, STATE 11814), (sym_global_statement, STATE 11814),
    (sym_nonlocal_statement, STATE 11814), (sym_exec_statement, STATE 11814),
    (sym_type_alias_statement, STATE 11814), (sym_parameterized_alias_statement, STATE 11814),
    (sym_pattern, STATE 8086), (sym_tuple_pattern, STATE 8101), (sym_list_pattern, STATE 8101),
    (sym_list_splat_pattern, STATE 6795), (sym_as_pattern, STATE 7969),
    (sym_expression, STATE 9623), (sym_primary_expression, STATE 7326),
    (sym_comptime_expression, STATE 7017), (sym_transfer_expression, STATE 7017),
    (sym_not_operator, STATE 7969), (sym_boolean_operator, STATE 7969),
    (sym_binary_operator, STATE 7017), (sym_unary_operator, STATE 7017),
    (sym_comparison_operator, STATE 7969), (sym_lambda, STATE 7969),
    (sym_assignment, STATE 12425), (sym_augmented_assignment, STATE 12425),
    (sym_pattern_list, STATE 8578), (sym_yield, STATE 12425), (sym_attribute, STATE 6796),
    (sym_subscript, STATE 6797), (sym_call, STATE 6768), (sym_type, STATE 10130),
    (sym_called_type, STATE 9093), (sym_function_type, STATE 9093), (sym_splat_type, STATE 9093),
    (sym_generic_type, STATE 8287), (sym_union_type, STATE 9093),
    (sym_intersection_type, STATE 9093), (sym__intersection_operand, STATE 12294),
    (sym_constrained_type, STATE 9093), (sym_member_type, STATE 8165),
    (sym_mlir_type, STATE 7017), (sym_list, STATE 7017), (sym_set, STATE 7017),
    (sym_tuple, STATE 7017), (sym_dictionary, STATE 7017), (sym_struct_literal, STATE 7017),
    (sym_list_comprehension, STATE 7017), (sym_dictionary_comprehension, STATE 7017),
    (sym_set_comprehension, STATE 7017), (sym_generator_expression, STATE 7017),
    (sym_parenthesized_expression, STATE 7017), (sym_conditional_expression, STATE 7969),
    (sym_concatenated_string, STATE 7017), (sym_string, STATE 6729), (sym_await, STATE 7017),
    (sym_identifier, ACTIONS 327), (anon_sym_import, ACTIONS 11), (anon_sym_from, ACTIONS 13),
    (anon_sym_LPAREN, ACTIONS 329), (anon_sym_STAR, ACTIONS 331), (anon_sym_print, ACTIONS 333),
    (anon_sym_comptime, ACTIONS 335), (anon_sym_assert, ACTIONS 23),
    (anon_sym___comptime_assert, ACTIONS 25), (anon_sym_return, ACTIONS 27),
    (anon_sym_del, ACTIONS 29), (anon_sym_raise, ACTIONS 31), (anon_sym_pass, ACTIONS 33),
    (anon_sym_break, ACTIONS 35), (anon_sym_continue, ACTIONS 37), (anon_sym_match, ACTIONS 337),
    (anon_sym_async, ACTIONS 339), (anon_sym_def, ACTIONS 341), (anon_sym_LBRACK, ACTIONS 343),
    (anon_sym_LBRACE, ACTIONS 61), (anon_sym_STAR_STAR, ACTIONS 345),
    (anon_sym_global, ACTIONS 63), (anon_sym_nonlocal, ACTIONS 65), (anon_sym_exec, ACTIONS 347),
    (anon_sym_type, ACTIONS 349), (anon_sym_mut, ACTIONS 339), (anon_sym_out, ACTIONS 339),
    (anon_sym_DASH, ACTIONS 79), (anon_sym_PLUS, ACTIONS 79), (anon_sym_ref, ACTIONS 81),
    (anon_sym_var, ACTIONS 81), (anon_sym_not, ACTIONS 83), (anon_sym_TILDE, ACTIONS 79),
    (anon_sym_lambda, ACTIONS 85), (anon_sym_yield, ACTIONS 87), (sym_ellipsis, ACTIONS 89),
    (anon_sym___mlir_type, ACTIONS 91), (sym_integer, ACTIONS 93), (sym_float, ACTIONS 89),
    (anon_sym_await, ACTIONS 351), (sym_true, ACTIONS 93), (sym_false, ACTIONS 93),
    (sym_none, ACTIONS 93), (sym_comment, ACTIONS 3), (sym_line_continuation, ACTIONS 3),
    (sym__newline, ACTIONS 389), (sym__indent, ACTIONS 391), (sym_string_start, ACTIONS 97)]"

definition parse_table_939 :: "(nat \<times> nat) list" where "parse_table_939 = [
    (sym__simple_statements, STATE 6110), (sym_import_statement, STATE 11814),
    (sym_future_import_statement, STATE 11814), (sym_import_from_statement, STATE 11814),
    (sym_print_statement, STATE 11814), (sym_assert_statement, STATE 11814),
    (sym_comptime_assert_statement, STATE 11814), (sym_expression_statement, STATE 11814),
    (sym_tuple_expression, STATE 12425), (sym_named_expression, STATE 7969),
    (sym__named_expression_lhs, STATE 12752), (sym_return_statement, STATE 11814),
    (sym_delete_statement, STATE 11814), (sym_raise_statement, STATE 11814),
    (sym_pass_statement, STATE 11814), (sym_break_statement, STATE 11814),
    (sym_continue_statement, STATE 11814), (sym_global_statement, STATE 11814),
    (sym_nonlocal_statement, STATE 11814), (sym_exec_statement, STATE 11814),
    (sym_type_alias_statement, STATE 11814), (sym_parameterized_alias_statement, STATE 11814),
    (sym_pattern, STATE 8086), (sym_tuple_pattern, STATE 8101), (sym_list_pattern, STATE 8101),
    (sym_list_splat_pattern, STATE 6795), (sym_as_pattern, STATE 7969),
    (sym_expression, STATE 9623), (sym_primary_expression, STATE 7326),
    (sym_comptime_expression, STATE 7017), (sym_transfer_expression, STATE 7017),
    (sym_not_operator, STATE 7969), (sym_boolean_operator, STATE 7969),
    (sym_binary_operator, STATE 7017), (sym_unary_operator, STATE 7017),
    (sym_comparison_operator, STATE 7969), (sym_lambda, STATE 7969),
    (sym_assignment, STATE 12425), (sym_augmented_assignment, STATE 12425),
    (sym_pattern_list, STATE 8578), (sym_yield, STATE 12425), (sym_attribute, STATE 6796),
    (sym_subscript, STATE 6797), (sym_call, STATE 6768), (sym_type, STATE 10130),
    (sym_called_type, STATE 9093), (sym_function_type, STATE 9093), (sym_splat_type, STATE 9093),
    (sym_generic_type, STATE 8287), (sym_union_type, STATE 9093),
    (sym_intersection_type, STATE 9093), (sym__intersection_operand, STATE 12294),
    (sym_constrained_type, STATE 9093), (sym_member_type, STATE 8165),
    (sym_mlir_type, STATE 7017), (sym_list, STATE 7017), (sym_set, STATE 7017),
    (sym_tuple, STATE 7017), (sym_dictionary, STATE 7017), (sym_struct_literal, STATE 7017),
    (sym_list_comprehension, STATE 7017), (sym_dictionary_comprehension, STATE 7017),
    (sym_set_comprehension, STATE 7017), (sym_generator_expression, STATE 7017),
    (sym_parenthesized_expression, STATE 7017), (sym_conditional_expression, STATE 7969),
    (sym_concatenated_string, STATE 7017), (sym_string, STATE 6729), (sym_await, STATE 7017),
    (sym_identifier, ACTIONS 327), (anon_sym_import, ACTIONS 11), (anon_sym_from, ACTIONS 13),
    (anon_sym_LPAREN, ACTIONS 329), (anon_sym_STAR, ACTIONS 331), (anon_sym_print, ACTIONS 333),
    (anon_sym_comptime, ACTIONS 335), (anon_sym_assert, ACTIONS 23),
    (anon_sym___comptime_assert, ACTIONS 25), (anon_sym_return, ACTIONS 27),
    (anon_sym_del, ACTIONS 29), (anon_sym_raise, ACTIONS 31), (anon_sym_pass, ACTIONS 33),
    (anon_sym_break, ACTIONS 35), (anon_sym_continue, ACTIONS 37), (anon_sym_match, ACTIONS 337),
    (anon_sym_async, ACTIONS 339), (anon_sym_def, ACTIONS 341), (anon_sym_LBRACK, ACTIONS 343),
    (anon_sym_LBRACE, ACTIONS 61), (anon_sym_STAR_STAR, ACTIONS 345),
    (anon_sym_global, ACTIONS 63), (anon_sym_nonlocal, ACTIONS 65), (anon_sym_exec, ACTIONS 347),
    (anon_sym_type, ACTIONS 349), (anon_sym_mut, ACTIONS 339), (anon_sym_out, ACTIONS 339),
    (anon_sym_DASH, ACTIONS 79), (anon_sym_PLUS, ACTIONS 79), (anon_sym_ref, ACTIONS 81),
    (anon_sym_var, ACTIONS 81), (anon_sym_not, ACTIONS 83), (anon_sym_TILDE, ACTIONS 79),
    (anon_sym_lambda, ACTIONS 85), (anon_sym_yield, ACTIONS 87), (sym_ellipsis, ACTIONS 89),
    (anon_sym___mlir_type, ACTIONS 91), (sym_integer, ACTIONS 93), (sym_float, ACTIONS 89),
    (anon_sym_await, ACTIONS 351), (sym_true, ACTIONS 93), (sym_false, ACTIONS 93),
    (sym_none, ACTIONS 93), (sym_comment, ACTIONS 3), (sym_line_continuation, ACTIONS 3),
    (sym__newline, ACTIONS 393), (sym__indent, ACTIONS 395), (sym_string_start, ACTIONS 97)]"

definition parse_table_940 :: "(nat \<times> nat) list" where "parse_table_940 = [
    (sym__simple_statements, STATE 5238), (sym_import_statement, STATE 12239),
    (sym_future_import_statement, STATE 12239), (sym_import_from_statement, STATE 12239),
    (sym_print_statement, STATE 12239), (sym_assert_statement, STATE 12239),
    (sym_comptime_assert_statement, STATE 12239), (sym_expression_statement, STATE 12239),
    (sym_tuple_expression, STATE 12425), (sym_named_expression, STATE 7969),
    (sym__named_expression_lhs, STATE 12752), (sym_return_statement, STATE 12239),
    (sym_delete_statement, STATE 12239), (sym_raise_statement, STATE 12239),
    (sym_pass_statement, STATE 12239), (sym_break_statement, STATE 12239),
    (sym_continue_statement, STATE 12239), (sym_global_statement, STATE 12239),
    (sym_nonlocal_statement, STATE 12239), (sym_exec_statement, STATE 12239),
    (sym_type_alias_statement, STATE 12239), (sym_parameterized_alias_statement, STATE 12239),
    (sym_pattern, STATE 8086), (sym_tuple_pattern, STATE 8101), (sym_list_pattern, STATE 8101),
    (sym_list_splat_pattern, STATE 6795), (sym_as_pattern, STATE 7969),
    (sym_expression, STATE 9623), (sym_primary_expression, STATE 7326),
    (sym_comptime_expression, STATE 7017), (sym_transfer_expression, STATE 7017),
    (sym_not_operator, STATE 7969), (sym_boolean_operator, STATE 7969),
    (sym_binary_operator, STATE 7017), (sym_unary_operator, STATE 7017),
    (sym_comparison_operator, STATE 7969), (sym_lambda, STATE 7969),
    (sym_assignment, STATE 12425), (sym_augmented_assignment, STATE 12425),
    (sym_pattern_list, STATE 8578), (sym_yield, STATE 12425), (sym_attribute, STATE 6796),
    (sym_subscript, STATE 6797), (sym_call, STATE 6768), (sym_type, STATE 10130),
    (sym_called_type, STATE 9093), (sym_function_type, STATE 9093), (sym_splat_type, STATE 9093),
    (sym_generic_type, STATE 8287), (sym_union_type, STATE 9093),
    (sym_intersection_type, STATE 9093), (sym__intersection_operand, STATE 12294),
    (sym_constrained_type, STATE 9093), (sym_member_type, STATE 8165),
    (sym_mlir_type, STATE 7017), (sym_list, STATE 7017), (sym_set, STATE 7017),
    (sym_tuple, STATE 7017), (sym_dictionary, STATE 7017), (sym_struct_literal, STATE 7017),
    (sym_list_comprehension, STATE 7017), (sym_dictionary_comprehension, STATE 7017),
    (sym_set_comprehension, STATE 7017), (sym_generator_expression, STATE 7017),
    (sym_parenthesized_expression, STATE 7017), (sym_conditional_expression, STATE 7969),
    (sym_concatenated_string, STATE 7017), (sym_string, STATE 6729), (sym_await, STATE 7017),
    (sym_identifier, ACTIONS 327), (anon_sym_import, ACTIONS 11), (anon_sym_from, ACTIONS 13),
    (anon_sym_LPAREN, ACTIONS 329), (anon_sym_STAR, ACTIONS 331), (anon_sym_print, ACTIONS 333),
    (anon_sym_comptime, ACTIONS 335), (anon_sym_assert, ACTIONS 23),
    (anon_sym___comptime_assert, ACTIONS 25), (anon_sym_return, ACTIONS 27),
    (anon_sym_del, ACTIONS 29), (anon_sym_raise, ACTIONS 31), (anon_sym_pass, ACTIONS 33),
    (anon_sym_break, ACTIONS 35), (anon_sym_continue, ACTIONS 37), (anon_sym_match, ACTIONS 337),
    (anon_sym_async, ACTIONS 339), (anon_sym_def, ACTIONS 341), (anon_sym_LBRACK, ACTIONS 343),
    (anon_sym_LBRACE, ACTIONS 61), (anon_sym_STAR_STAR, ACTIONS 345),
    (anon_sym_global, ACTIONS 63), (anon_sym_nonlocal, ACTIONS 65), (anon_sym_exec, ACTIONS 347),
    (anon_sym_type, ACTIONS 349), (anon_sym_mut, ACTIONS 339), (anon_sym_out, ACTIONS 339),
    (anon_sym_DASH, ACTIONS 79), (anon_sym_PLUS, ACTIONS 79), (anon_sym_ref, ACTIONS 81),
    (anon_sym_var, ACTIONS 81), (anon_sym_not, ACTIONS 83), (anon_sym_TILDE, ACTIONS 79),
    (anon_sym_lambda, ACTIONS 85), (anon_sym_yield, ACTIONS 87), (sym_ellipsis, ACTIONS 89),
    (anon_sym___mlir_type, ACTIONS 91), (sym_integer, ACTIONS 93), (sym_float, ACTIONS 89),
    (anon_sym_await, ACTIONS 351), (sym_true, ACTIONS 93), (sym_false, ACTIONS 93),
    (sym_none, ACTIONS 93), (sym_comment, ACTIONS 3), (sym_line_continuation, ACTIONS 3),
    (sym__newline, ACTIONS 397), (sym__indent, ACTIONS 399), (sym_string_start, ACTIONS 97)]"

definition parse_table_941 :: "(nat \<times> nat) list" where "parse_table_941 = [
    (sym__simple_statements, STATE 6123), (sym_import_statement, STATE 11814),
    (sym_future_import_statement, STATE 11814), (sym_import_from_statement, STATE 11814),
    (sym_print_statement, STATE 11814), (sym_assert_statement, STATE 11814),
    (sym_comptime_assert_statement, STATE 11814), (sym_expression_statement, STATE 11814),
    (sym_tuple_expression, STATE 12425), (sym_named_expression, STATE 7969),
    (sym__named_expression_lhs, STATE 12752), (sym_return_statement, STATE 11814),
    (sym_delete_statement, STATE 11814), (sym_raise_statement, STATE 11814),
    (sym_pass_statement, STATE 11814), (sym_break_statement, STATE 11814),
    (sym_continue_statement, STATE 11814), (sym_global_statement, STATE 11814),
    (sym_nonlocal_statement, STATE 11814), (sym_exec_statement, STATE 11814),
    (sym_type_alias_statement, STATE 11814), (sym_parameterized_alias_statement, STATE 11814),
    (sym_pattern, STATE 8086), (sym_tuple_pattern, STATE 8101), (sym_list_pattern, STATE 8101),
    (sym_list_splat_pattern, STATE 6795), (sym_as_pattern, STATE 7969),
    (sym_expression, STATE 9623), (sym_primary_expression, STATE 7326),
    (sym_comptime_expression, STATE 7017), (sym_transfer_expression, STATE 7017),
    (sym_not_operator, STATE 7969), (sym_boolean_operator, STATE 7969),
    (sym_binary_operator, STATE 7017), (sym_unary_operator, STATE 7017),
    (sym_comparison_operator, STATE 7969), (sym_lambda, STATE 7969),
    (sym_assignment, STATE 12425), (sym_augmented_assignment, STATE 12425),
    (sym_pattern_list, STATE 8578), (sym_yield, STATE 12425), (sym_attribute, STATE 6796),
    (sym_subscript, STATE 6797), (sym_call, STATE 6768), (sym_type, STATE 10130),
    (sym_called_type, STATE 9093), (sym_function_type, STATE 9093), (sym_splat_type, STATE 9093),
    (sym_generic_type, STATE 8287), (sym_union_type, STATE 9093),
    (sym_intersection_type, STATE 9093), (sym__intersection_operand, STATE 12294),
    (sym_constrained_type, STATE 9093), (sym_member_type, STATE 8165),
    (sym_mlir_type, STATE 7017), (sym_list, STATE 7017), (sym_set, STATE 7017),
    (sym_tuple, STATE 7017), (sym_dictionary, STATE 7017), (sym_struct_literal, STATE 7017),
    (sym_list_comprehension, STATE 7017), (sym_dictionary_comprehension, STATE 7017),
    (sym_set_comprehension, STATE 7017), (sym_generator_expression, STATE 7017),
    (sym_parenthesized_expression, STATE 7017), (sym_conditional_expression, STATE 7969),
    (sym_concatenated_string, STATE 7017), (sym_string, STATE 6729), (sym_await, STATE 7017),
    (sym_identifier, ACTIONS 327), (anon_sym_import, ACTIONS 11), (anon_sym_from, ACTIONS 13),
    (anon_sym_LPAREN, ACTIONS 329), (anon_sym_STAR, ACTIONS 331), (anon_sym_print, ACTIONS 333),
    (anon_sym_comptime, ACTIONS 335), (anon_sym_assert, ACTIONS 23),
    (anon_sym___comptime_assert, ACTIONS 25), (anon_sym_return, ACTIONS 27),
    (anon_sym_del, ACTIONS 29), (anon_sym_raise, ACTIONS 31), (anon_sym_pass, ACTIONS 33),
    (anon_sym_break, ACTIONS 35), (anon_sym_continue, ACTIONS 37), (anon_sym_match, ACTIONS 337),
    (anon_sym_async, ACTIONS 339), (anon_sym_def, ACTIONS 341), (anon_sym_LBRACK, ACTIONS 343),
    (anon_sym_LBRACE, ACTIONS 61), (anon_sym_STAR_STAR, ACTIONS 345),
    (anon_sym_global, ACTIONS 63), (anon_sym_nonlocal, ACTIONS 65), (anon_sym_exec, ACTIONS 347),
    (anon_sym_type, ACTIONS 349), (anon_sym_mut, ACTIONS 339), (anon_sym_out, ACTIONS 339),
    (anon_sym_DASH, ACTIONS 79), (anon_sym_PLUS, ACTIONS 79), (anon_sym_ref, ACTIONS 81),
    (anon_sym_var, ACTIONS 81), (anon_sym_not, ACTIONS 83), (anon_sym_TILDE, ACTIONS 79),
    (anon_sym_lambda, ACTIONS 85), (anon_sym_yield, ACTIONS 87), (sym_ellipsis, ACTIONS 89),
    (anon_sym___mlir_type, ACTIONS 91), (sym_integer, ACTIONS 93), (sym_float, ACTIONS 89),
    (anon_sym_await, ACTIONS 351), (sym_true, ACTIONS 93), (sym_false, ACTIONS 93),
    (sym_none, ACTIONS 93), (sym_comment, ACTIONS 3), (sym_line_continuation, ACTIONS 3),
    (sym__newline, ACTIONS 401), (sym__indent, ACTIONS 403), (sym_string_start, ACTIONS 97)]"

definition parse_table_942 :: "(nat \<times> nat) list" where "parse_table_942 = [
    (sym__simple_statements, STATE 5602), (sym_import_statement, STATE 12239),
    (sym_future_import_statement, STATE 12239), (sym_import_from_statement, STATE 12239),
    (sym_print_statement, STATE 12239), (sym_assert_statement, STATE 12239),
    (sym_comptime_assert_statement, STATE 12239), (sym_expression_statement, STATE 12239),
    (sym_tuple_expression, STATE 12425), (sym_named_expression, STATE 7969),
    (sym__named_expression_lhs, STATE 12752), (sym_return_statement, STATE 12239),
    (sym_delete_statement, STATE 12239), (sym_raise_statement, STATE 12239),
    (sym_pass_statement, STATE 12239), (sym_break_statement, STATE 12239),
    (sym_continue_statement, STATE 12239), (sym_global_statement, STATE 12239),
    (sym_nonlocal_statement, STATE 12239), (sym_exec_statement, STATE 12239),
    (sym_type_alias_statement, STATE 12239), (sym_parameterized_alias_statement, STATE 12239),
    (sym_pattern, STATE 8086), (sym_tuple_pattern, STATE 8101), (sym_list_pattern, STATE 8101),
    (sym_list_splat_pattern, STATE 6795), (sym_as_pattern, STATE 7969),
    (sym_expression, STATE 9623), (sym_primary_expression, STATE 7326),
    (sym_comptime_expression, STATE 7017), (sym_transfer_expression, STATE 7017),
    (sym_not_operator, STATE 7969), (sym_boolean_operator, STATE 7969),
    (sym_binary_operator, STATE 7017), (sym_unary_operator, STATE 7017),
    (sym_comparison_operator, STATE 7969), (sym_lambda, STATE 7969),
    (sym_assignment, STATE 12425), (sym_augmented_assignment, STATE 12425),
    (sym_pattern_list, STATE 8578), (sym_yield, STATE 12425), (sym_attribute, STATE 6796),
    (sym_subscript, STATE 6797), (sym_call, STATE 6768), (sym_type, STATE 10130),
    (sym_called_type, STATE 9093), (sym_function_type, STATE 9093), (sym_splat_type, STATE 9093),
    (sym_generic_type, STATE 8287), (sym_union_type, STATE 9093),
    (sym_intersection_type, STATE 9093), (sym__intersection_operand, STATE 12294),
    (sym_constrained_type, STATE 9093), (sym_member_type, STATE 8165),
    (sym_mlir_type, STATE 7017), (sym_list, STATE 7017), (sym_set, STATE 7017),
    (sym_tuple, STATE 7017), (sym_dictionary, STATE 7017), (sym_struct_literal, STATE 7017),
    (sym_list_comprehension, STATE 7017), (sym_dictionary_comprehension, STATE 7017),
    (sym_set_comprehension, STATE 7017), (sym_generator_expression, STATE 7017),
    (sym_parenthesized_expression, STATE 7017), (sym_conditional_expression, STATE 7969),
    (sym_concatenated_string, STATE 7017), (sym_string, STATE 6729), (sym_await, STATE 7017),
    (sym_identifier, ACTIONS 327), (anon_sym_import, ACTIONS 11), (anon_sym_from, ACTIONS 13),
    (anon_sym_LPAREN, ACTIONS 329), (anon_sym_STAR, ACTIONS 331), (anon_sym_print, ACTIONS 333),
    (anon_sym_comptime, ACTIONS 335), (anon_sym_assert, ACTIONS 23),
    (anon_sym___comptime_assert, ACTIONS 25), (anon_sym_return, ACTIONS 27),
    (anon_sym_del, ACTIONS 29), (anon_sym_raise, ACTIONS 31), (anon_sym_pass, ACTIONS 33),
    (anon_sym_break, ACTIONS 35), (anon_sym_continue, ACTIONS 37), (anon_sym_match, ACTIONS 337),
    (anon_sym_async, ACTIONS 339), (anon_sym_def, ACTIONS 341), (anon_sym_LBRACK, ACTIONS 343),
    (anon_sym_LBRACE, ACTIONS 61), (anon_sym_STAR_STAR, ACTIONS 345),
    (anon_sym_global, ACTIONS 63), (anon_sym_nonlocal, ACTIONS 65), (anon_sym_exec, ACTIONS 347),
    (anon_sym_type, ACTIONS 349), (anon_sym_mut, ACTIONS 339), (anon_sym_out, ACTIONS 339),
    (anon_sym_DASH, ACTIONS 79), (anon_sym_PLUS, ACTIONS 79), (anon_sym_ref, ACTIONS 81),
    (anon_sym_var, ACTIONS 81), (anon_sym_not, ACTIONS 83), (anon_sym_TILDE, ACTIONS 79),
    (anon_sym_lambda, ACTIONS 85), (anon_sym_yield, ACTIONS 87), (sym_ellipsis, ACTIONS 89),
    (anon_sym___mlir_type, ACTIONS 91), (sym_integer, ACTIONS 93), (sym_float, ACTIONS 89),
    (anon_sym_await, ACTIONS 351), (sym_true, ACTIONS 93), (sym_false, ACTIONS 93),
    (sym_none, ACTIONS 93), (sym_comment, ACTIONS 3), (sym_line_continuation, ACTIONS 3),
    (sym__newline, ACTIONS 405), (sym__indent, ACTIONS 407), (sym_string_start, ACTIONS 97)]"

definition parse_table_943 :: "(nat \<times> nat) list" where "parse_table_943 = [
    (sym__simple_statements, STATE 5242), (sym_import_statement, STATE 12239),
    (sym_future_import_statement, STATE 12239), (sym_import_from_statement, STATE 12239),
    (sym_print_statement, STATE 12239), (sym_assert_statement, STATE 12239),
    (sym_comptime_assert_statement, STATE 12239), (sym_expression_statement, STATE 12239),
    (sym_tuple_expression, STATE 12425), (sym_named_expression, STATE 7969),
    (sym__named_expression_lhs, STATE 12752), (sym_return_statement, STATE 12239),
    (sym_delete_statement, STATE 12239), (sym_raise_statement, STATE 12239),
    (sym_pass_statement, STATE 12239), (sym_break_statement, STATE 12239),
    (sym_continue_statement, STATE 12239), (sym_global_statement, STATE 12239),
    (sym_nonlocal_statement, STATE 12239), (sym_exec_statement, STATE 12239),
    (sym_type_alias_statement, STATE 12239), (sym_parameterized_alias_statement, STATE 12239),
    (sym_pattern, STATE 8086), (sym_tuple_pattern, STATE 8101), (sym_list_pattern, STATE 8101),
    (sym_list_splat_pattern, STATE 6795), (sym_as_pattern, STATE 7969),
    (sym_expression, STATE 9623), (sym_primary_expression, STATE 7326),
    (sym_comptime_expression, STATE 7017), (sym_transfer_expression, STATE 7017),
    (sym_not_operator, STATE 7969), (sym_boolean_operator, STATE 7969),
    (sym_binary_operator, STATE 7017), (sym_unary_operator, STATE 7017),
    (sym_comparison_operator, STATE 7969), (sym_lambda, STATE 7969),
    (sym_assignment, STATE 12425), (sym_augmented_assignment, STATE 12425),
    (sym_pattern_list, STATE 8578), (sym_yield, STATE 12425), (sym_attribute, STATE 6796),
    (sym_subscript, STATE 6797), (sym_call, STATE 6768), (sym_type, STATE 10130),
    (sym_called_type, STATE 9093), (sym_function_type, STATE 9093), (sym_splat_type, STATE 9093),
    (sym_generic_type, STATE 8287), (sym_union_type, STATE 9093),
    (sym_intersection_type, STATE 9093), (sym__intersection_operand, STATE 12294),
    (sym_constrained_type, STATE 9093), (sym_member_type, STATE 8165),
    (sym_mlir_type, STATE 7017), (sym_list, STATE 7017), (sym_set, STATE 7017),
    (sym_tuple, STATE 7017), (sym_dictionary, STATE 7017), (sym_struct_literal, STATE 7017),
    (sym_list_comprehension, STATE 7017), (sym_dictionary_comprehension, STATE 7017),
    (sym_set_comprehension, STATE 7017), (sym_generator_expression, STATE 7017),
    (sym_parenthesized_expression, STATE 7017), (sym_conditional_expression, STATE 7969),
    (sym_concatenated_string, STATE 7017), (sym_string, STATE 6729), (sym_await, STATE 7017),
    (sym_identifier, ACTIONS 327), (anon_sym_import, ACTIONS 11), (anon_sym_from, ACTIONS 13),
    (anon_sym_LPAREN, ACTIONS 329), (anon_sym_STAR, ACTIONS 331), (anon_sym_print, ACTIONS 333),
    (anon_sym_comptime, ACTIONS 335), (anon_sym_assert, ACTIONS 23),
    (anon_sym___comptime_assert, ACTIONS 25), (anon_sym_return, ACTIONS 27),
    (anon_sym_del, ACTIONS 29), (anon_sym_raise, ACTIONS 31), (anon_sym_pass, ACTIONS 33),
    (anon_sym_break, ACTIONS 35), (anon_sym_continue, ACTIONS 37), (anon_sym_match, ACTIONS 337),
    (anon_sym_async, ACTIONS 339), (anon_sym_def, ACTIONS 341), (anon_sym_LBRACK, ACTIONS 343),
    (anon_sym_LBRACE, ACTIONS 61), (anon_sym_STAR_STAR, ACTIONS 345),
    (anon_sym_global, ACTIONS 63), (anon_sym_nonlocal, ACTIONS 65), (anon_sym_exec, ACTIONS 347),
    (anon_sym_type, ACTIONS 349), (anon_sym_mut, ACTIONS 339), (anon_sym_out, ACTIONS 339),
    (anon_sym_DASH, ACTIONS 79), (anon_sym_PLUS, ACTIONS 79), (anon_sym_ref, ACTIONS 81),
    (anon_sym_var, ACTIONS 81), (anon_sym_not, ACTIONS 83), (anon_sym_TILDE, ACTIONS 79),
    (anon_sym_lambda, ACTIONS 85), (anon_sym_yield, ACTIONS 87), (sym_ellipsis, ACTIONS 89),
    (anon_sym___mlir_type, ACTIONS 91), (sym_integer, ACTIONS 93), (sym_float, ACTIONS 89),
    (anon_sym_await, ACTIONS 351), (sym_true, ACTIONS 93), (sym_false, ACTIONS 93),
    (sym_none, ACTIONS 93), (sym_comment, ACTIONS 3), (sym_line_continuation, ACTIONS 3),
    (sym__newline, ACTIONS 409), (sym__indent, ACTIONS 411), (sym_string_start, ACTIONS 97)]"

definition parse_table_944 :: "(nat \<times> nat) list" where "parse_table_944 = [
    (sym__simple_statements, STATE 6129), (sym_import_statement, STATE 11814),
    (sym_future_import_statement, STATE 11814), (sym_import_from_statement, STATE 11814),
    (sym_print_statement, STATE 11814), (sym_assert_statement, STATE 11814),
    (sym_comptime_assert_statement, STATE 11814), (sym_expression_statement, STATE 11814),
    (sym_tuple_expression, STATE 12425), (sym_named_expression, STATE 7969),
    (sym__named_expression_lhs, STATE 12752), (sym_return_statement, STATE 11814),
    (sym_delete_statement, STATE 11814), (sym_raise_statement, STATE 11814),
    (sym_pass_statement, STATE 11814), (sym_break_statement, STATE 11814),
    (sym_continue_statement, STATE 11814), (sym_global_statement, STATE 11814),
    (sym_nonlocal_statement, STATE 11814), (sym_exec_statement, STATE 11814),
    (sym_type_alias_statement, STATE 11814), (sym_parameterized_alias_statement, STATE 11814),
    (sym_pattern, STATE 8086), (sym_tuple_pattern, STATE 8101), (sym_list_pattern, STATE 8101),
    (sym_list_splat_pattern, STATE 6795), (sym_as_pattern, STATE 7969),
    (sym_expression, STATE 9623), (sym_primary_expression, STATE 7326),
    (sym_comptime_expression, STATE 7017), (sym_transfer_expression, STATE 7017),
    (sym_not_operator, STATE 7969), (sym_boolean_operator, STATE 7969),
    (sym_binary_operator, STATE 7017), (sym_unary_operator, STATE 7017),
    (sym_comparison_operator, STATE 7969), (sym_lambda, STATE 7969),
    (sym_assignment, STATE 12425), (sym_augmented_assignment, STATE 12425),
    (sym_pattern_list, STATE 8578), (sym_yield, STATE 12425), (sym_attribute, STATE 6796),
    (sym_subscript, STATE 6797), (sym_call, STATE 6768), (sym_type, STATE 10130),
    (sym_called_type, STATE 9093), (sym_function_type, STATE 9093), (sym_splat_type, STATE 9093),
    (sym_generic_type, STATE 8287), (sym_union_type, STATE 9093),
    (sym_intersection_type, STATE 9093), (sym__intersection_operand, STATE 12294),
    (sym_constrained_type, STATE 9093), (sym_member_type, STATE 8165),
    (sym_mlir_type, STATE 7017), (sym_list, STATE 7017), (sym_set, STATE 7017),
    (sym_tuple, STATE 7017), (sym_dictionary, STATE 7017), (sym_struct_literal, STATE 7017),
    (sym_list_comprehension, STATE 7017), (sym_dictionary_comprehension, STATE 7017),
    (sym_set_comprehension, STATE 7017), (sym_generator_expression, STATE 7017),
    (sym_parenthesized_expression, STATE 7017), (sym_conditional_expression, STATE 7969),
    (sym_concatenated_string, STATE 7017), (sym_string, STATE 6729), (sym_await, STATE 7017),
    (sym_identifier, ACTIONS 327), (anon_sym_import, ACTIONS 11), (anon_sym_from, ACTIONS 13),
    (anon_sym_LPAREN, ACTIONS 329), (anon_sym_STAR, ACTIONS 331), (anon_sym_print, ACTIONS 333),
    (anon_sym_comptime, ACTIONS 335), (anon_sym_assert, ACTIONS 23),
    (anon_sym___comptime_assert, ACTIONS 25), (anon_sym_return, ACTIONS 27),
    (anon_sym_del, ACTIONS 29), (anon_sym_raise, ACTIONS 31), (anon_sym_pass, ACTIONS 33),
    (anon_sym_break, ACTIONS 35), (anon_sym_continue, ACTIONS 37), (anon_sym_match, ACTIONS 337),
    (anon_sym_async, ACTIONS 339), (anon_sym_def, ACTIONS 341), (anon_sym_LBRACK, ACTIONS 343),
    (anon_sym_LBRACE, ACTIONS 61), (anon_sym_STAR_STAR, ACTIONS 345),
    (anon_sym_global, ACTIONS 63), (anon_sym_nonlocal, ACTIONS 65), (anon_sym_exec, ACTIONS 347),
    (anon_sym_type, ACTIONS 349), (anon_sym_mut, ACTIONS 339), (anon_sym_out, ACTIONS 339),
    (anon_sym_DASH, ACTIONS 79), (anon_sym_PLUS, ACTIONS 79), (anon_sym_ref, ACTIONS 81),
    (anon_sym_var, ACTIONS 81), (anon_sym_not, ACTIONS 83), (anon_sym_TILDE, ACTIONS 79),
    (anon_sym_lambda, ACTIONS 85), (anon_sym_yield, ACTIONS 87), (sym_ellipsis, ACTIONS 89),
    (anon_sym___mlir_type, ACTIONS 91), (sym_integer, ACTIONS 93), (sym_float, ACTIONS 89),
    (anon_sym_await, ACTIONS 351), (sym_true, ACTIONS 93), (sym_false, ACTIONS 93),
    (sym_none, ACTIONS 93), (sym_comment, ACTIONS 3), (sym_line_continuation, ACTIONS 3),
    (sym__newline, ACTIONS 413), (sym__indent, ACTIONS 415), (sym_string_start, ACTIONS 97)]"

definition parse_table_945 :: "(nat \<times> nat) list" where "parse_table_945 = [
    (sym__simple_statements, STATE 4939), (sym_import_statement, STATE 11814),
    (sym_future_import_statement, STATE 11814), (sym_import_from_statement, STATE 11814),
    (sym_print_statement, STATE 11814), (sym_assert_statement, STATE 11814),
    (sym_comptime_assert_statement, STATE 11814), (sym_expression_statement, STATE 11814),
    (sym_tuple_expression, STATE 12425), (sym_named_expression, STATE 7969),
    (sym__named_expression_lhs, STATE 12752), (sym_return_statement, STATE 11814),
    (sym_delete_statement, STATE 11814), (sym_raise_statement, STATE 11814),
    (sym_pass_statement, STATE 11814), (sym_break_statement, STATE 11814),
    (sym_continue_statement, STATE 11814), (sym_global_statement, STATE 11814),
    (sym_nonlocal_statement, STATE 11814), (sym_exec_statement, STATE 11814),
    (sym_type_alias_statement, STATE 11814), (sym_parameterized_alias_statement, STATE 11814),
    (sym_pattern, STATE 8086), (sym_tuple_pattern, STATE 8101), (sym_list_pattern, STATE 8101),
    (sym_list_splat_pattern, STATE 6795), (sym_as_pattern, STATE 7969),
    (sym_expression, STATE 9623), (sym_primary_expression, STATE 7326),
    (sym_comptime_expression, STATE 7017), (sym_transfer_expression, STATE 7017),
    (sym_not_operator, STATE 7969), (sym_boolean_operator, STATE 7969),
    (sym_binary_operator, STATE 7017), (sym_unary_operator, STATE 7017),
    (sym_comparison_operator, STATE 7969), (sym_lambda, STATE 7969),
    (sym_assignment, STATE 12425), (sym_augmented_assignment, STATE 12425),
    (sym_pattern_list, STATE 8578), (sym_yield, STATE 12425), (sym_attribute, STATE 6796),
    (sym_subscript, STATE 6797), (sym_call, STATE 6768), (sym_type, STATE 10130),
    (sym_called_type, STATE 9093), (sym_function_type, STATE 9093), (sym_splat_type, STATE 9093),
    (sym_generic_type, STATE 8287), (sym_union_type, STATE 9093),
    (sym_intersection_type, STATE 9093), (sym__intersection_operand, STATE 12294),
    (sym_constrained_type, STATE 9093), (sym_member_type, STATE 8165),
    (sym_mlir_type, STATE 7017), (sym_list, STATE 7017), (sym_set, STATE 7017),
    (sym_tuple, STATE 7017), (sym_dictionary, STATE 7017), (sym_struct_literal, STATE 7017),
    (sym_list_comprehension, STATE 7017), (sym_dictionary_comprehension, STATE 7017),
    (sym_set_comprehension, STATE 7017), (sym_generator_expression, STATE 7017),
    (sym_parenthesized_expression, STATE 7017), (sym_conditional_expression, STATE 7969),
    (sym_concatenated_string, STATE 7017), (sym_string, STATE 6729), (sym_await, STATE 7017),
    (sym_identifier, ACTIONS 327), (anon_sym_import, ACTIONS 11), (anon_sym_from, ACTIONS 13),
    (anon_sym_LPAREN, ACTIONS 329), (anon_sym_STAR, ACTIONS 331), (anon_sym_print, ACTIONS 333),
    (anon_sym_comptime, ACTIONS 335), (anon_sym_assert, ACTIONS 23),
    (anon_sym___comptime_assert, ACTIONS 25), (anon_sym_return, ACTIONS 27),
    (anon_sym_del, ACTIONS 29), (anon_sym_raise, ACTIONS 31), (anon_sym_pass, ACTIONS 33),
    (anon_sym_break, ACTIONS 35), (anon_sym_continue, ACTIONS 37), (anon_sym_match, ACTIONS 337),
    (anon_sym_async, ACTIONS 339), (anon_sym_def, ACTIONS 341), (anon_sym_LBRACK, ACTIONS 343),
    (anon_sym_LBRACE, ACTIONS 61), (anon_sym_STAR_STAR, ACTIONS 345),
    (anon_sym_global, ACTIONS 63), (anon_sym_nonlocal, ACTIONS 65), (anon_sym_exec, ACTIONS 347),
    (anon_sym_type, ACTIONS 349), (anon_sym_mut, ACTIONS 339), (anon_sym_out, ACTIONS 339),
    (anon_sym_DASH, ACTIONS 79), (anon_sym_PLUS, ACTIONS 79), (anon_sym_ref, ACTIONS 81),
    (anon_sym_var, ACTIONS 81), (anon_sym_not, ACTIONS 83), (anon_sym_TILDE, ACTIONS 79),
    (anon_sym_lambda, ACTIONS 85), (anon_sym_yield, ACTIONS 87), (sym_ellipsis, ACTIONS 89),
    (anon_sym___mlir_type, ACTIONS 91), (sym_integer, ACTIONS 93), (sym_float, ACTIONS 89),
    (anon_sym_await, ACTIONS 351), (sym_true, ACTIONS 93), (sym_false, ACTIONS 93),
    (sym_none, ACTIONS 93), (sym_comment, ACTIONS 3), (sym_line_continuation, ACTIONS 3),
    (sym__newline, ACTIONS 417), (sym__indent, ACTIONS 419), (sym_string_start, ACTIONS 97)]"

definition parse_table_946 :: "(nat \<times> nat) list" where "parse_table_946 = [
    (sym__simple_statements, STATE 4766), (sym_import_statement, STATE 12239),
    (sym_future_import_statement, STATE 12239), (sym_import_from_statement, STATE 12239),
    (sym_print_statement, STATE 12239), (sym_assert_statement, STATE 12239),
    (sym_comptime_assert_statement, STATE 12239), (sym_expression_statement, STATE 12239),
    (sym_tuple_expression, STATE 12425), (sym_named_expression, STATE 7969),
    (sym__named_expression_lhs, STATE 12752), (sym_return_statement, STATE 12239),
    (sym_delete_statement, STATE 12239), (sym_raise_statement, STATE 12239),
    (sym_pass_statement, STATE 12239), (sym_break_statement, STATE 12239),
    (sym_continue_statement, STATE 12239), (sym_global_statement, STATE 12239),
    (sym_nonlocal_statement, STATE 12239), (sym_exec_statement, STATE 12239),
    (sym_type_alias_statement, STATE 12239), (sym_parameterized_alias_statement, STATE 12239),
    (sym_pattern, STATE 8086), (sym_tuple_pattern, STATE 8101), (sym_list_pattern, STATE 8101),
    (sym_list_splat_pattern, STATE 6795), (sym_as_pattern, STATE 7969),
    (sym_expression, STATE 9623), (sym_primary_expression, STATE 7326),
    (sym_comptime_expression, STATE 7017), (sym_transfer_expression, STATE 7017),
    (sym_not_operator, STATE 7969), (sym_boolean_operator, STATE 7969),
    (sym_binary_operator, STATE 7017), (sym_unary_operator, STATE 7017),
    (sym_comparison_operator, STATE 7969), (sym_lambda, STATE 7969),
    (sym_assignment, STATE 12425), (sym_augmented_assignment, STATE 12425),
    (sym_pattern_list, STATE 8578), (sym_yield, STATE 12425), (sym_attribute, STATE 6796),
    (sym_subscript, STATE 6797), (sym_call, STATE 6768), (sym_type, STATE 10130),
    (sym_called_type, STATE 9093), (sym_function_type, STATE 9093), (sym_splat_type, STATE 9093),
    (sym_generic_type, STATE 8287), (sym_union_type, STATE 9093),
    (sym_intersection_type, STATE 9093), (sym__intersection_operand, STATE 12294),
    (sym_constrained_type, STATE 9093), (sym_member_type, STATE 8165),
    (sym_mlir_type, STATE 7017), (sym_list, STATE 7017), (sym_set, STATE 7017),
    (sym_tuple, STATE 7017), (sym_dictionary, STATE 7017), (sym_struct_literal, STATE 7017),
    (sym_list_comprehension, STATE 7017), (sym_dictionary_comprehension, STATE 7017),
    (sym_set_comprehension, STATE 7017), (sym_generator_expression, STATE 7017),
    (sym_parenthesized_expression, STATE 7017), (sym_conditional_expression, STATE 7969),
    (sym_concatenated_string, STATE 7017), (sym_string, STATE 6729), (sym_await, STATE 7017),
    (sym_identifier, ACTIONS 327), (anon_sym_import, ACTIONS 11), (anon_sym_from, ACTIONS 13),
    (anon_sym_LPAREN, ACTIONS 329), (anon_sym_STAR, ACTIONS 331), (anon_sym_print, ACTIONS 333),
    (anon_sym_comptime, ACTIONS 335), (anon_sym_assert, ACTIONS 23),
    (anon_sym___comptime_assert, ACTIONS 25), (anon_sym_return, ACTIONS 27),
    (anon_sym_del, ACTIONS 29), (anon_sym_raise, ACTIONS 31), (anon_sym_pass, ACTIONS 33),
    (anon_sym_break, ACTIONS 35), (anon_sym_continue, ACTIONS 37), (anon_sym_match, ACTIONS 337),
    (anon_sym_async, ACTIONS 339), (anon_sym_def, ACTIONS 341), (anon_sym_LBRACK, ACTIONS 343),
    (anon_sym_LBRACE, ACTIONS 61), (anon_sym_STAR_STAR, ACTIONS 345),
    (anon_sym_global, ACTIONS 63), (anon_sym_nonlocal, ACTIONS 65), (anon_sym_exec, ACTIONS 347),
    (anon_sym_type, ACTIONS 349), (anon_sym_mut, ACTIONS 339), (anon_sym_out, ACTIONS 339),
    (anon_sym_DASH, ACTIONS 79), (anon_sym_PLUS, ACTIONS 79), (anon_sym_ref, ACTIONS 81),
    (anon_sym_var, ACTIONS 81), (anon_sym_not, ACTIONS 83), (anon_sym_TILDE, ACTIONS 79),
    (anon_sym_lambda, ACTIONS 85), (anon_sym_yield, ACTIONS 87), (sym_ellipsis, ACTIONS 89),
    (anon_sym___mlir_type, ACTIONS 91), (sym_integer, ACTIONS 93), (sym_float, ACTIONS 89),
    (anon_sym_await, ACTIONS 351), (sym_true, ACTIONS 93), (sym_false, ACTIONS 93),
    (sym_none, ACTIONS 93), (sym_comment, ACTIONS 3), (sym_line_continuation, ACTIONS 3),
    (sym__newline, ACTIONS 421), (sym__indent, ACTIONS 423), (sym_string_start, ACTIONS 97)]"

definition parse_table_947 :: "(nat \<times> nat) list" where "parse_table_947 = [
    (sym__simple_statements, STATE 4951), (sym_import_statement, STATE 11814),
    (sym_future_import_statement, STATE 11814), (sym_import_from_statement, STATE 11814),
    (sym_print_statement, STATE 11814), (sym_assert_statement, STATE 11814),
    (sym_comptime_assert_statement, STATE 11814), (sym_expression_statement, STATE 11814),
    (sym_tuple_expression, STATE 12425), (sym_named_expression, STATE 7969),
    (sym__named_expression_lhs, STATE 12752), (sym_return_statement, STATE 11814),
    (sym_delete_statement, STATE 11814), (sym_raise_statement, STATE 11814),
    (sym_pass_statement, STATE 11814), (sym_break_statement, STATE 11814),
    (sym_continue_statement, STATE 11814), (sym_global_statement, STATE 11814),
    (sym_nonlocal_statement, STATE 11814), (sym_exec_statement, STATE 11814),
    (sym_type_alias_statement, STATE 11814), (sym_parameterized_alias_statement, STATE 11814),
    (sym_pattern, STATE 8086), (sym_tuple_pattern, STATE 8101), (sym_list_pattern, STATE 8101),
    (sym_list_splat_pattern, STATE 6795), (sym_as_pattern, STATE 7969),
    (sym_expression, STATE 9623), (sym_primary_expression, STATE 7326),
    (sym_comptime_expression, STATE 7017), (sym_transfer_expression, STATE 7017),
    (sym_not_operator, STATE 7969), (sym_boolean_operator, STATE 7969),
    (sym_binary_operator, STATE 7017), (sym_unary_operator, STATE 7017),
    (sym_comparison_operator, STATE 7969), (sym_lambda, STATE 7969),
    (sym_assignment, STATE 12425), (sym_augmented_assignment, STATE 12425),
    (sym_pattern_list, STATE 8578), (sym_yield, STATE 12425), (sym_attribute, STATE 6796),
    (sym_subscript, STATE 6797), (sym_call, STATE 6768), (sym_type, STATE 10130),
    (sym_called_type, STATE 9093), (sym_function_type, STATE 9093), (sym_splat_type, STATE 9093),
    (sym_generic_type, STATE 8287), (sym_union_type, STATE 9093),
    (sym_intersection_type, STATE 9093), (sym__intersection_operand, STATE 12294),
    (sym_constrained_type, STATE 9093), (sym_member_type, STATE 8165),
    (sym_mlir_type, STATE 7017), (sym_list, STATE 7017), (sym_set, STATE 7017),
    (sym_tuple, STATE 7017), (sym_dictionary, STATE 7017), (sym_struct_literal, STATE 7017),
    (sym_list_comprehension, STATE 7017), (sym_dictionary_comprehension, STATE 7017),
    (sym_set_comprehension, STATE 7017), (sym_generator_expression, STATE 7017),
    (sym_parenthesized_expression, STATE 7017), (sym_conditional_expression, STATE 7969),
    (sym_concatenated_string, STATE 7017), (sym_string, STATE 6729), (sym_await, STATE 7017),
    (sym_identifier, ACTIONS 327), (anon_sym_import, ACTIONS 11), (anon_sym_from, ACTIONS 13),
    (anon_sym_LPAREN, ACTIONS 329), (anon_sym_STAR, ACTIONS 331), (anon_sym_print, ACTIONS 333),
    (anon_sym_comptime, ACTIONS 335), (anon_sym_assert, ACTIONS 23),
    (anon_sym___comptime_assert, ACTIONS 25), (anon_sym_return, ACTIONS 27),
    (anon_sym_del, ACTIONS 29), (anon_sym_raise, ACTIONS 31), (anon_sym_pass, ACTIONS 33),
    (anon_sym_break, ACTIONS 35), (anon_sym_continue, ACTIONS 37), (anon_sym_match, ACTIONS 337),
    (anon_sym_async, ACTIONS 339), (anon_sym_def, ACTIONS 341), (anon_sym_LBRACK, ACTIONS 343),
    (anon_sym_LBRACE, ACTIONS 61), (anon_sym_STAR_STAR, ACTIONS 345),
    (anon_sym_global, ACTIONS 63), (anon_sym_nonlocal, ACTIONS 65), (anon_sym_exec, ACTIONS 347),
    (anon_sym_type, ACTIONS 349), (anon_sym_mut, ACTIONS 339), (anon_sym_out, ACTIONS 339),
    (anon_sym_DASH, ACTIONS 79), (anon_sym_PLUS, ACTIONS 79), (anon_sym_ref, ACTIONS 81),
    (anon_sym_var, ACTIONS 81), (anon_sym_not, ACTIONS 83), (anon_sym_TILDE, ACTIONS 79),
    (anon_sym_lambda, ACTIONS 85), (anon_sym_yield, ACTIONS 87), (sym_ellipsis, ACTIONS 89),
    (anon_sym___mlir_type, ACTIONS 91), (sym_integer, ACTIONS 93), (sym_float, ACTIONS 89),
    (anon_sym_await, ACTIONS 351), (sym_true, ACTIONS 93), (sym_false, ACTIONS 93),
    (sym_none, ACTIONS 93), (sym_comment, ACTIONS 3), (sym_line_continuation, ACTIONS 3),
    (sym__newline, ACTIONS 425), (sym__indent, ACTIONS 427), (sym_string_start, ACTIONS 97)]"

definition parse_table_948 :: "(nat \<times> nat) list" where "parse_table_948 = [
    (sym__simple_statements, STATE 4954), (sym_import_statement, STATE 11814),
    (sym_future_import_statement, STATE 11814), (sym_import_from_statement, STATE 11814),
    (sym_print_statement, STATE 11814), (sym_assert_statement, STATE 11814),
    (sym_comptime_assert_statement, STATE 11814), (sym_expression_statement, STATE 11814),
    (sym_tuple_expression, STATE 12425), (sym_named_expression, STATE 7969),
    (sym__named_expression_lhs, STATE 12752), (sym_return_statement, STATE 11814),
    (sym_delete_statement, STATE 11814), (sym_raise_statement, STATE 11814),
    (sym_pass_statement, STATE 11814), (sym_break_statement, STATE 11814),
    (sym_continue_statement, STATE 11814), (sym_global_statement, STATE 11814),
    (sym_nonlocal_statement, STATE 11814), (sym_exec_statement, STATE 11814),
    (sym_type_alias_statement, STATE 11814), (sym_parameterized_alias_statement, STATE 11814),
    (sym_pattern, STATE 8086), (sym_tuple_pattern, STATE 8101), (sym_list_pattern, STATE 8101),
    (sym_list_splat_pattern, STATE 6795), (sym_as_pattern, STATE 7969),
    (sym_expression, STATE 9623), (sym_primary_expression, STATE 7326),
    (sym_comptime_expression, STATE 7017), (sym_transfer_expression, STATE 7017),
    (sym_not_operator, STATE 7969), (sym_boolean_operator, STATE 7969),
    (sym_binary_operator, STATE 7017), (sym_unary_operator, STATE 7017),
    (sym_comparison_operator, STATE 7969), (sym_lambda, STATE 7969),
    (sym_assignment, STATE 12425), (sym_augmented_assignment, STATE 12425),
    (sym_pattern_list, STATE 8578), (sym_yield, STATE 12425), (sym_attribute, STATE 6796),
    (sym_subscript, STATE 6797), (sym_call, STATE 6768), (sym_type, STATE 10130),
    (sym_called_type, STATE 9093), (sym_function_type, STATE 9093), (sym_splat_type, STATE 9093),
    (sym_generic_type, STATE 8287), (sym_union_type, STATE 9093),
    (sym_intersection_type, STATE 9093), (sym__intersection_operand, STATE 12294),
    (sym_constrained_type, STATE 9093), (sym_member_type, STATE 8165),
    (sym_mlir_type, STATE 7017), (sym_list, STATE 7017), (sym_set, STATE 7017),
    (sym_tuple, STATE 7017), (sym_dictionary, STATE 7017), (sym_struct_literal, STATE 7017),
    (sym_list_comprehension, STATE 7017), (sym_dictionary_comprehension, STATE 7017),
    (sym_set_comprehension, STATE 7017), (sym_generator_expression, STATE 7017),
    (sym_parenthesized_expression, STATE 7017), (sym_conditional_expression, STATE 7969),
    (sym_concatenated_string, STATE 7017), (sym_string, STATE 6729), (sym_await, STATE 7017),
    (sym_identifier, ACTIONS 327), (anon_sym_import, ACTIONS 11), (anon_sym_from, ACTIONS 13),
    (anon_sym_LPAREN, ACTIONS 329), (anon_sym_STAR, ACTIONS 331), (anon_sym_print, ACTIONS 333),
    (anon_sym_comptime, ACTIONS 335), (anon_sym_assert, ACTIONS 23),
    (anon_sym___comptime_assert, ACTIONS 25), (anon_sym_return, ACTIONS 27),
    (anon_sym_del, ACTIONS 29), (anon_sym_raise, ACTIONS 31), (anon_sym_pass, ACTIONS 33),
    (anon_sym_break, ACTIONS 35), (anon_sym_continue, ACTIONS 37), (anon_sym_match, ACTIONS 337),
    (anon_sym_async, ACTIONS 339), (anon_sym_def, ACTIONS 341), (anon_sym_LBRACK, ACTIONS 343),
    (anon_sym_LBRACE, ACTIONS 61), (anon_sym_STAR_STAR, ACTIONS 345),
    (anon_sym_global, ACTIONS 63), (anon_sym_nonlocal, ACTIONS 65), (anon_sym_exec, ACTIONS 347),
    (anon_sym_type, ACTIONS 349), (anon_sym_mut, ACTIONS 339), (anon_sym_out, ACTIONS 339),
    (anon_sym_DASH, ACTIONS 79), (anon_sym_PLUS, ACTIONS 79), (anon_sym_ref, ACTIONS 81),
    (anon_sym_var, ACTIONS 81), (anon_sym_not, ACTIONS 83), (anon_sym_TILDE, ACTIONS 79),
    (anon_sym_lambda, ACTIONS 85), (anon_sym_yield, ACTIONS 87), (sym_ellipsis, ACTIONS 89),
    (anon_sym___mlir_type, ACTIONS 91), (sym_integer, ACTIONS 93), (sym_float, ACTIONS 89),
    (anon_sym_await, ACTIONS 351), (sym_true, ACTIONS 93), (sym_false, ACTIONS 93),
    (sym_none, ACTIONS 93), (sym_comment, ACTIONS 3), (sym_line_continuation, ACTIONS 3),
    (sym__newline, ACTIONS 429), (sym__indent, ACTIONS 431), (sym_string_start, ACTIONS 97)]"

definition parse_table_949 :: "(nat \<times> nat) list" where "parse_table_949 = [
    (sym__simple_statements, STATE 6146), (sym_import_statement, STATE 11814),
    (sym_future_import_statement, STATE 11814), (sym_import_from_statement, STATE 11814),
    (sym_print_statement, STATE 11814), (sym_assert_statement, STATE 11814),
    (sym_comptime_assert_statement, STATE 11814), (sym_expression_statement, STATE 11814),
    (sym_tuple_expression, STATE 12425), (sym_named_expression, STATE 7969),
    (sym__named_expression_lhs, STATE 12752), (sym_return_statement, STATE 11814),
    (sym_delete_statement, STATE 11814), (sym_raise_statement, STATE 11814),
    (sym_pass_statement, STATE 11814), (sym_break_statement, STATE 11814),
    (sym_continue_statement, STATE 11814), (sym_global_statement, STATE 11814),
    (sym_nonlocal_statement, STATE 11814), (sym_exec_statement, STATE 11814),
    (sym_type_alias_statement, STATE 11814), (sym_parameterized_alias_statement, STATE 11814),
    (sym_pattern, STATE 8086), (sym_tuple_pattern, STATE 8101), (sym_list_pattern, STATE 8101),
    (sym_list_splat_pattern, STATE 6795), (sym_as_pattern, STATE 7969),
    (sym_expression, STATE 9623), (sym_primary_expression, STATE 7326),
    (sym_comptime_expression, STATE 7017), (sym_transfer_expression, STATE 7017),
    (sym_not_operator, STATE 7969), (sym_boolean_operator, STATE 7969),
    (sym_binary_operator, STATE 7017), (sym_unary_operator, STATE 7017),
    (sym_comparison_operator, STATE 7969), (sym_lambda, STATE 7969),
    (sym_assignment, STATE 12425), (sym_augmented_assignment, STATE 12425),
    (sym_pattern_list, STATE 8578), (sym_yield, STATE 12425), (sym_attribute, STATE 6796),
    (sym_subscript, STATE 6797), (sym_call, STATE 6768), (sym_type, STATE 10130),
    (sym_called_type, STATE 9093), (sym_function_type, STATE 9093), (sym_splat_type, STATE 9093),
    (sym_generic_type, STATE 8287), (sym_union_type, STATE 9093),
    (sym_intersection_type, STATE 9093), (sym__intersection_operand, STATE 12294),
    (sym_constrained_type, STATE 9093), (sym_member_type, STATE 8165),
    (sym_mlir_type, STATE 7017), (sym_list, STATE 7017), (sym_set, STATE 7017),
    (sym_tuple, STATE 7017), (sym_dictionary, STATE 7017), (sym_struct_literal, STATE 7017),
    (sym_list_comprehension, STATE 7017), (sym_dictionary_comprehension, STATE 7017),
    (sym_set_comprehension, STATE 7017), (sym_generator_expression, STATE 7017),
    (sym_parenthesized_expression, STATE 7017), (sym_conditional_expression, STATE 7969),
    (sym_concatenated_string, STATE 7017), (sym_string, STATE 6729), (sym_await, STATE 7017),
    (sym_identifier, ACTIONS 327), (anon_sym_import, ACTIONS 11), (anon_sym_from, ACTIONS 13),
    (anon_sym_LPAREN, ACTIONS 329), (anon_sym_STAR, ACTIONS 331), (anon_sym_print, ACTIONS 333),
    (anon_sym_comptime, ACTIONS 335), (anon_sym_assert, ACTIONS 23),
    (anon_sym___comptime_assert, ACTIONS 25), (anon_sym_return, ACTIONS 27),
    (anon_sym_del, ACTIONS 29), (anon_sym_raise, ACTIONS 31), (anon_sym_pass, ACTIONS 33),
    (anon_sym_break, ACTIONS 35), (anon_sym_continue, ACTIONS 37), (anon_sym_match, ACTIONS 337),
    (anon_sym_async, ACTIONS 339), (anon_sym_def, ACTIONS 341), (anon_sym_LBRACK, ACTIONS 343),
    (anon_sym_LBRACE, ACTIONS 61), (anon_sym_STAR_STAR, ACTIONS 345),
    (anon_sym_global, ACTIONS 63), (anon_sym_nonlocal, ACTIONS 65), (anon_sym_exec, ACTIONS 347),
    (anon_sym_type, ACTIONS 349), (anon_sym_mut, ACTIONS 339), (anon_sym_out, ACTIONS 339),
    (anon_sym_DASH, ACTIONS 79), (anon_sym_PLUS, ACTIONS 79), (anon_sym_ref, ACTIONS 81),
    (anon_sym_var, ACTIONS 81), (anon_sym_not, ACTIONS 83), (anon_sym_TILDE, ACTIONS 79),
    (anon_sym_lambda, ACTIONS 85), (anon_sym_yield, ACTIONS 87), (sym_ellipsis, ACTIONS 89),
    (anon_sym___mlir_type, ACTIONS 91), (sym_integer, ACTIONS 93), (sym_float, ACTIONS 89),
    (anon_sym_await, ACTIONS 351), (sym_true, ACTIONS 93), (sym_false, ACTIONS 93),
    (sym_none, ACTIONS 93), (sym_comment, ACTIONS 3), (sym_line_continuation, ACTIONS 3),
    (sym__newline, ACTIONS 433), (sym__indent, ACTIONS 435), (sym_string_start, ACTIONS 97)]"

definition parse_table_950 :: "(nat \<times> nat) list" where "parse_table_950 = [
    (sym__simple_statements, STATE 6148), (sym_import_statement, STATE 11814),
    (sym_future_import_statement, STATE 11814), (sym_import_from_statement, STATE 11814),
    (sym_print_statement, STATE 11814), (sym_assert_statement, STATE 11814),
    (sym_comptime_assert_statement, STATE 11814), (sym_expression_statement, STATE 11814),
    (sym_tuple_expression, STATE 12425), (sym_named_expression, STATE 7969),
    (sym__named_expression_lhs, STATE 12752), (sym_return_statement, STATE 11814),
    (sym_delete_statement, STATE 11814), (sym_raise_statement, STATE 11814),
    (sym_pass_statement, STATE 11814), (sym_break_statement, STATE 11814),
    (sym_continue_statement, STATE 11814), (sym_global_statement, STATE 11814),
    (sym_nonlocal_statement, STATE 11814), (sym_exec_statement, STATE 11814),
    (sym_type_alias_statement, STATE 11814), (sym_parameterized_alias_statement, STATE 11814),
    (sym_pattern, STATE 8086), (sym_tuple_pattern, STATE 8101), (sym_list_pattern, STATE 8101),
    (sym_list_splat_pattern, STATE 6795), (sym_as_pattern, STATE 7969),
    (sym_expression, STATE 9623), (sym_primary_expression, STATE 7326),
    (sym_comptime_expression, STATE 7017), (sym_transfer_expression, STATE 7017),
    (sym_not_operator, STATE 7969), (sym_boolean_operator, STATE 7969),
    (sym_binary_operator, STATE 7017), (sym_unary_operator, STATE 7017),
    (sym_comparison_operator, STATE 7969), (sym_lambda, STATE 7969),
    (sym_assignment, STATE 12425), (sym_augmented_assignment, STATE 12425),
    (sym_pattern_list, STATE 8578), (sym_yield, STATE 12425), (sym_attribute, STATE 6796),
    (sym_subscript, STATE 6797), (sym_call, STATE 6768), (sym_type, STATE 10130),
    (sym_called_type, STATE 9093), (sym_function_type, STATE 9093), (sym_splat_type, STATE 9093),
    (sym_generic_type, STATE 8287), (sym_union_type, STATE 9093),
    (sym_intersection_type, STATE 9093), (sym__intersection_operand, STATE 12294),
    (sym_constrained_type, STATE 9093), (sym_member_type, STATE 8165),
    (sym_mlir_type, STATE 7017), (sym_list, STATE 7017), (sym_set, STATE 7017),
    (sym_tuple, STATE 7017), (sym_dictionary, STATE 7017), (sym_struct_literal, STATE 7017),
    (sym_list_comprehension, STATE 7017), (sym_dictionary_comprehension, STATE 7017),
    (sym_set_comprehension, STATE 7017), (sym_generator_expression, STATE 7017),
    (sym_parenthesized_expression, STATE 7017), (sym_conditional_expression, STATE 7969),
    (sym_concatenated_string, STATE 7017), (sym_string, STATE 6729), (sym_await, STATE 7017),
    (sym_identifier, ACTIONS 327), (anon_sym_import, ACTIONS 11), (anon_sym_from, ACTIONS 13),
    (anon_sym_LPAREN, ACTIONS 329), (anon_sym_STAR, ACTIONS 331), (anon_sym_print, ACTIONS 333),
    (anon_sym_comptime, ACTIONS 335), (anon_sym_assert, ACTIONS 23),
    (anon_sym___comptime_assert, ACTIONS 25), (anon_sym_return, ACTIONS 27),
    (anon_sym_del, ACTIONS 29), (anon_sym_raise, ACTIONS 31), (anon_sym_pass, ACTIONS 33),
    (anon_sym_break, ACTIONS 35), (anon_sym_continue, ACTIONS 37), (anon_sym_match, ACTIONS 337),
    (anon_sym_async, ACTIONS 339), (anon_sym_def, ACTIONS 341), (anon_sym_LBRACK, ACTIONS 343),
    (anon_sym_LBRACE, ACTIONS 61), (anon_sym_STAR_STAR, ACTIONS 345),
    (anon_sym_global, ACTIONS 63), (anon_sym_nonlocal, ACTIONS 65), (anon_sym_exec, ACTIONS 347),
    (anon_sym_type, ACTIONS 349), (anon_sym_mut, ACTIONS 339), (anon_sym_out, ACTIONS 339),
    (anon_sym_DASH, ACTIONS 79), (anon_sym_PLUS, ACTIONS 79), (anon_sym_ref, ACTIONS 81),
    (anon_sym_var, ACTIONS 81), (anon_sym_not, ACTIONS 83), (anon_sym_TILDE, ACTIONS 79),
    (anon_sym_lambda, ACTIONS 85), (anon_sym_yield, ACTIONS 87), (sym_ellipsis, ACTIONS 89),
    (anon_sym___mlir_type, ACTIONS 91), (sym_integer, ACTIONS 93), (sym_float, ACTIONS 89),
    (anon_sym_await, ACTIONS 351), (sym_true, ACTIONS 93), (sym_false, ACTIONS 93),
    (sym_none, ACTIONS 93), (sym_comment, ACTIONS 3), (sym_line_continuation, ACTIONS 3),
    (sym__newline, ACTIONS 437), (sym__indent, ACTIONS 439), (sym_string_start, ACTIONS 97)]"

definition parse_table_951 :: "(nat \<times> nat) list" where "parse_table_951 = [
    (sym__simple_statements, STATE 5636), (sym_import_statement, STATE 12239),
    (sym_future_import_statement, STATE 12239), (sym_import_from_statement, STATE 12239),
    (sym_print_statement, STATE 12239), (sym_assert_statement, STATE 12239),
    (sym_comptime_assert_statement, STATE 12239), (sym_expression_statement, STATE 12239),
    (sym_tuple_expression, STATE 12425), (sym_named_expression, STATE 7969),
    (sym__named_expression_lhs, STATE 12752), (sym_return_statement, STATE 12239),
    (sym_delete_statement, STATE 12239), (sym_raise_statement, STATE 12239),
    (sym_pass_statement, STATE 12239), (sym_break_statement, STATE 12239),
    (sym_continue_statement, STATE 12239), (sym_global_statement, STATE 12239),
    (sym_nonlocal_statement, STATE 12239), (sym_exec_statement, STATE 12239),
    (sym_type_alias_statement, STATE 12239), (sym_parameterized_alias_statement, STATE 12239),
    (sym_pattern, STATE 8086), (sym_tuple_pattern, STATE 8101), (sym_list_pattern, STATE 8101),
    (sym_list_splat_pattern, STATE 6795), (sym_as_pattern, STATE 7969),
    (sym_expression, STATE 9623), (sym_primary_expression, STATE 7326),
    (sym_comptime_expression, STATE 7017), (sym_transfer_expression, STATE 7017),
    (sym_not_operator, STATE 7969), (sym_boolean_operator, STATE 7969),
    (sym_binary_operator, STATE 7017), (sym_unary_operator, STATE 7017),
    (sym_comparison_operator, STATE 7969), (sym_lambda, STATE 7969),
    (sym_assignment, STATE 12425), (sym_augmented_assignment, STATE 12425),
    (sym_pattern_list, STATE 8578), (sym_yield, STATE 12425), (sym_attribute, STATE 6796),
    (sym_subscript, STATE 6797), (sym_call, STATE 6768), (sym_type, STATE 10130),
    (sym_called_type, STATE 9093), (sym_function_type, STATE 9093), (sym_splat_type, STATE 9093),
    (sym_generic_type, STATE 8287), (sym_union_type, STATE 9093),
    (sym_intersection_type, STATE 9093), (sym__intersection_operand, STATE 12294),
    (sym_constrained_type, STATE 9093), (sym_member_type, STATE 8165),
    (sym_mlir_type, STATE 7017), (sym_list, STATE 7017), (sym_set, STATE 7017),
    (sym_tuple, STATE 7017), (sym_dictionary, STATE 7017), (sym_struct_literal, STATE 7017),
    (sym_list_comprehension, STATE 7017), (sym_dictionary_comprehension, STATE 7017),
    (sym_set_comprehension, STATE 7017), (sym_generator_expression, STATE 7017),
    (sym_parenthesized_expression, STATE 7017), (sym_conditional_expression, STATE 7969),
    (sym_concatenated_string, STATE 7017), (sym_string, STATE 6729), (sym_await, STATE 7017),
    (sym_identifier, ACTIONS 327), (anon_sym_import, ACTIONS 11), (anon_sym_from, ACTIONS 13),
    (anon_sym_LPAREN, ACTIONS 329), (anon_sym_STAR, ACTIONS 331), (anon_sym_print, ACTIONS 333),
    (anon_sym_comptime, ACTIONS 335), (anon_sym_assert, ACTIONS 23),
    (anon_sym___comptime_assert, ACTIONS 25), (anon_sym_return, ACTIONS 27),
    (anon_sym_del, ACTIONS 29), (anon_sym_raise, ACTIONS 31), (anon_sym_pass, ACTIONS 33),
    (anon_sym_break, ACTIONS 35), (anon_sym_continue, ACTIONS 37), (anon_sym_match, ACTIONS 337),
    (anon_sym_async, ACTIONS 339), (anon_sym_def, ACTIONS 341), (anon_sym_LBRACK, ACTIONS 343),
    (anon_sym_LBRACE, ACTIONS 61), (anon_sym_STAR_STAR, ACTIONS 345),
    (anon_sym_global, ACTIONS 63), (anon_sym_nonlocal, ACTIONS 65), (anon_sym_exec, ACTIONS 347),
    (anon_sym_type, ACTIONS 349), (anon_sym_mut, ACTIONS 339), (anon_sym_out, ACTIONS 339),
    (anon_sym_DASH, ACTIONS 79), (anon_sym_PLUS, ACTIONS 79), (anon_sym_ref, ACTIONS 81),
    (anon_sym_var, ACTIONS 81), (anon_sym_not, ACTIONS 83), (anon_sym_TILDE, ACTIONS 79),
    (anon_sym_lambda, ACTIONS 85), (anon_sym_yield, ACTIONS 87), (sym_ellipsis, ACTIONS 89),
    (anon_sym___mlir_type, ACTIONS 91), (sym_integer, ACTIONS 93), (sym_float, ACTIONS 89),
    (anon_sym_await, ACTIONS 351), (sym_true, ACTIONS 93), (sym_false, ACTIONS 93),
    (sym_none, ACTIONS 93), (sym_comment, ACTIONS 3), (sym_line_continuation, ACTIONS 3),
    (sym__newline, ACTIONS 441), (sym__indent, ACTIONS 443), (sym_string_start, ACTIONS 97)]"

definition parse_table_952 :: "(nat \<times> nat) list" where "parse_table_952 = [
    (sym__simple_statements, STATE 6155), (sym_import_statement, STATE 11814),
    (sym_future_import_statement, STATE 11814), (sym_import_from_statement, STATE 11814),
    (sym_print_statement, STATE 11814), (sym_assert_statement, STATE 11814),
    (sym_comptime_assert_statement, STATE 11814), (sym_expression_statement, STATE 11814),
    (sym_tuple_expression, STATE 12425), (sym_named_expression, STATE 7969),
    (sym__named_expression_lhs, STATE 12752), (sym_return_statement, STATE 11814),
    (sym_delete_statement, STATE 11814), (sym_raise_statement, STATE 11814),
    (sym_pass_statement, STATE 11814), (sym_break_statement, STATE 11814),
    (sym_continue_statement, STATE 11814), (sym_global_statement, STATE 11814),
    (sym_nonlocal_statement, STATE 11814), (sym_exec_statement, STATE 11814),
    (sym_type_alias_statement, STATE 11814), (sym_parameterized_alias_statement, STATE 11814),
    (sym_pattern, STATE 8086), (sym_tuple_pattern, STATE 8101), (sym_list_pattern, STATE 8101),
    (sym_list_splat_pattern, STATE 6795), (sym_as_pattern, STATE 7969),
    (sym_expression, STATE 9623), (sym_primary_expression, STATE 7326),
    (sym_comptime_expression, STATE 7017), (sym_transfer_expression, STATE 7017),
    (sym_not_operator, STATE 7969), (sym_boolean_operator, STATE 7969),
    (sym_binary_operator, STATE 7017), (sym_unary_operator, STATE 7017),
    (sym_comparison_operator, STATE 7969), (sym_lambda, STATE 7969),
    (sym_assignment, STATE 12425), (sym_augmented_assignment, STATE 12425),
    (sym_pattern_list, STATE 8578), (sym_yield, STATE 12425), (sym_attribute, STATE 6796),
    (sym_subscript, STATE 6797), (sym_call, STATE 6768), (sym_type, STATE 10130),
    (sym_called_type, STATE 9093), (sym_function_type, STATE 9093), (sym_splat_type, STATE 9093),
    (sym_generic_type, STATE 8287), (sym_union_type, STATE 9093),
    (sym_intersection_type, STATE 9093), (sym__intersection_operand, STATE 12294),
    (sym_constrained_type, STATE 9093), (sym_member_type, STATE 8165),
    (sym_mlir_type, STATE 7017), (sym_list, STATE 7017), (sym_set, STATE 7017),
    (sym_tuple, STATE 7017), (sym_dictionary, STATE 7017), (sym_struct_literal, STATE 7017),
    (sym_list_comprehension, STATE 7017), (sym_dictionary_comprehension, STATE 7017),
    (sym_set_comprehension, STATE 7017), (sym_generator_expression, STATE 7017),
    (sym_parenthesized_expression, STATE 7017), (sym_conditional_expression, STATE 7969),
    (sym_concatenated_string, STATE 7017), (sym_string, STATE 6729), (sym_await, STATE 7017),
    (sym_identifier, ACTIONS 327), (anon_sym_import, ACTIONS 11), (anon_sym_from, ACTIONS 13),
    (anon_sym_LPAREN, ACTIONS 329), (anon_sym_STAR, ACTIONS 331), (anon_sym_print, ACTIONS 333),
    (anon_sym_comptime, ACTIONS 335), (anon_sym_assert, ACTIONS 23),
    (anon_sym___comptime_assert, ACTIONS 25), (anon_sym_return, ACTIONS 27),
    (anon_sym_del, ACTIONS 29), (anon_sym_raise, ACTIONS 31), (anon_sym_pass, ACTIONS 33),
    (anon_sym_break, ACTIONS 35), (anon_sym_continue, ACTIONS 37), (anon_sym_match, ACTIONS 337),
    (anon_sym_async, ACTIONS 339), (anon_sym_def, ACTIONS 341), (anon_sym_LBRACK, ACTIONS 343),
    (anon_sym_LBRACE, ACTIONS 61), (anon_sym_STAR_STAR, ACTIONS 345),
    (anon_sym_global, ACTIONS 63), (anon_sym_nonlocal, ACTIONS 65), (anon_sym_exec, ACTIONS 347),
    (anon_sym_type, ACTIONS 349), (anon_sym_mut, ACTIONS 339), (anon_sym_out, ACTIONS 339),
    (anon_sym_DASH, ACTIONS 79), (anon_sym_PLUS, ACTIONS 79), (anon_sym_ref, ACTIONS 81),
    (anon_sym_var, ACTIONS 81), (anon_sym_not, ACTIONS 83), (anon_sym_TILDE, ACTIONS 79),
    (anon_sym_lambda, ACTIONS 85), (anon_sym_yield, ACTIONS 87), (sym_ellipsis, ACTIONS 89),
    (anon_sym___mlir_type, ACTIONS 91), (sym_integer, ACTIONS 93), (sym_float, ACTIONS 89),
    (anon_sym_await, ACTIONS 351), (sym_true, ACTIONS 93), (sym_false, ACTIONS 93),
    (sym_none, ACTIONS 93), (sym_comment, ACTIONS 3), (sym_line_continuation, ACTIONS 3),
    (sym__newline, ACTIONS 445), (sym__indent, ACTIONS 447), (sym_string_start, ACTIONS 97)]"

definition parse_table_953 :: "(nat \<times> nat) list" where "parse_table_953 = [
    (sym__simple_statements, STATE 4967), (sym_import_statement, STATE 11814),
    (sym_future_import_statement, STATE 11814), (sym_import_from_statement, STATE 11814),
    (sym_print_statement, STATE 11814), (sym_assert_statement, STATE 11814),
    (sym_comptime_assert_statement, STATE 11814), (sym_expression_statement, STATE 11814),
    (sym_tuple_expression, STATE 12425), (sym_named_expression, STATE 7969),
    (sym__named_expression_lhs, STATE 12752), (sym_return_statement, STATE 11814),
    (sym_delete_statement, STATE 11814), (sym_raise_statement, STATE 11814),
    (sym_pass_statement, STATE 11814), (sym_break_statement, STATE 11814),
    (sym_continue_statement, STATE 11814), (sym_global_statement, STATE 11814),
    (sym_nonlocal_statement, STATE 11814), (sym_exec_statement, STATE 11814),
    (sym_type_alias_statement, STATE 11814), (sym_parameterized_alias_statement, STATE 11814),
    (sym_pattern, STATE 8086), (sym_tuple_pattern, STATE 8101), (sym_list_pattern, STATE 8101),
    (sym_list_splat_pattern, STATE 6795), (sym_as_pattern, STATE 7969),
    (sym_expression, STATE 9623), (sym_primary_expression, STATE 7326),
    (sym_comptime_expression, STATE 7017), (sym_transfer_expression, STATE 7017),
    (sym_not_operator, STATE 7969), (sym_boolean_operator, STATE 7969),
    (sym_binary_operator, STATE 7017), (sym_unary_operator, STATE 7017),
    (sym_comparison_operator, STATE 7969), (sym_lambda, STATE 7969),
    (sym_assignment, STATE 12425), (sym_augmented_assignment, STATE 12425),
    (sym_pattern_list, STATE 8578), (sym_yield, STATE 12425), (sym_attribute, STATE 6796),
    (sym_subscript, STATE 6797), (sym_call, STATE 6768), (sym_type, STATE 10130),
    (sym_called_type, STATE 9093), (sym_function_type, STATE 9093), (sym_splat_type, STATE 9093),
    (sym_generic_type, STATE 8287), (sym_union_type, STATE 9093),
    (sym_intersection_type, STATE 9093), (sym__intersection_operand, STATE 12294),
    (sym_constrained_type, STATE 9093), (sym_member_type, STATE 8165),
    (sym_mlir_type, STATE 7017), (sym_list, STATE 7017), (sym_set, STATE 7017),
    (sym_tuple, STATE 7017), (sym_dictionary, STATE 7017), (sym_struct_literal, STATE 7017),
    (sym_list_comprehension, STATE 7017), (sym_dictionary_comprehension, STATE 7017),
    (sym_set_comprehension, STATE 7017), (sym_generator_expression, STATE 7017),
    (sym_parenthesized_expression, STATE 7017), (sym_conditional_expression, STATE 7969),
    (sym_concatenated_string, STATE 7017), (sym_string, STATE 6729), (sym_await, STATE 7017),
    (sym_identifier, ACTIONS 327), (anon_sym_import, ACTIONS 11), (anon_sym_from, ACTIONS 13),
    (anon_sym_LPAREN, ACTIONS 329), (anon_sym_STAR, ACTIONS 331), (anon_sym_print, ACTIONS 333),
    (anon_sym_comptime, ACTIONS 335), (anon_sym_assert, ACTIONS 23),
    (anon_sym___comptime_assert, ACTIONS 25), (anon_sym_return, ACTIONS 27),
    (anon_sym_del, ACTIONS 29), (anon_sym_raise, ACTIONS 31), (anon_sym_pass, ACTIONS 33),
    (anon_sym_break, ACTIONS 35), (anon_sym_continue, ACTIONS 37), (anon_sym_match, ACTIONS 337),
    (anon_sym_async, ACTIONS 339), (anon_sym_def, ACTIONS 341), (anon_sym_LBRACK, ACTIONS 343),
    (anon_sym_LBRACE, ACTIONS 61), (anon_sym_STAR_STAR, ACTIONS 345),
    (anon_sym_global, ACTIONS 63), (anon_sym_nonlocal, ACTIONS 65), (anon_sym_exec, ACTIONS 347),
    (anon_sym_type, ACTIONS 349), (anon_sym_mut, ACTIONS 339), (anon_sym_out, ACTIONS 339),
    (anon_sym_DASH, ACTIONS 79), (anon_sym_PLUS, ACTIONS 79), (anon_sym_ref, ACTIONS 81),
    (anon_sym_var, ACTIONS 81), (anon_sym_not, ACTIONS 83), (anon_sym_TILDE, ACTIONS 79),
    (anon_sym_lambda, ACTIONS 85), (anon_sym_yield, ACTIONS 87), (sym_ellipsis, ACTIONS 89),
    (anon_sym___mlir_type, ACTIONS 91), (sym_integer, ACTIONS 93), (sym_float, ACTIONS 89),
    (anon_sym_await, ACTIONS 351), (sym_true, ACTIONS 93), (sym_false, ACTIONS 93),
    (sym_none, ACTIONS 93), (sym_comment, ACTIONS 3), (sym_line_continuation, ACTIONS 3),
    (sym__newline, ACTIONS 449), (sym__indent, ACTIONS 451), (sym_string_start, ACTIONS 97)]"

definition parse_table_954 :: "(nat \<times> nat) list" where "parse_table_954 = [
    (sym__simple_statements, STATE 5251), (sym_import_statement, STATE 12239),
    (sym_future_import_statement, STATE 12239), (sym_import_from_statement, STATE 12239),
    (sym_print_statement, STATE 12239), (sym_assert_statement, STATE 12239),
    (sym_comptime_assert_statement, STATE 12239), (sym_expression_statement, STATE 12239),
    (sym_tuple_expression, STATE 12425), (sym_named_expression, STATE 7969),
    (sym__named_expression_lhs, STATE 12752), (sym_return_statement, STATE 12239),
    (sym_delete_statement, STATE 12239), (sym_raise_statement, STATE 12239),
    (sym_pass_statement, STATE 12239), (sym_break_statement, STATE 12239),
    (sym_continue_statement, STATE 12239), (sym_global_statement, STATE 12239),
    (sym_nonlocal_statement, STATE 12239), (sym_exec_statement, STATE 12239),
    (sym_type_alias_statement, STATE 12239), (sym_parameterized_alias_statement, STATE 12239),
    (sym_pattern, STATE 8086), (sym_tuple_pattern, STATE 8101), (sym_list_pattern, STATE 8101),
    (sym_list_splat_pattern, STATE 6795), (sym_as_pattern, STATE 7969),
    (sym_expression, STATE 9623), (sym_primary_expression, STATE 7326),
    (sym_comptime_expression, STATE 7017), (sym_transfer_expression, STATE 7017),
    (sym_not_operator, STATE 7969), (sym_boolean_operator, STATE 7969),
    (sym_binary_operator, STATE 7017), (sym_unary_operator, STATE 7017),
    (sym_comparison_operator, STATE 7969), (sym_lambda, STATE 7969),
    (sym_assignment, STATE 12425), (sym_augmented_assignment, STATE 12425),
    (sym_pattern_list, STATE 8578), (sym_yield, STATE 12425), (sym_attribute, STATE 6796),
    (sym_subscript, STATE 6797), (sym_call, STATE 6768), (sym_type, STATE 10130),
    (sym_called_type, STATE 9093), (sym_function_type, STATE 9093), (sym_splat_type, STATE 9093),
    (sym_generic_type, STATE 8287), (sym_union_type, STATE 9093),
    (sym_intersection_type, STATE 9093), (sym__intersection_operand, STATE 12294),
    (sym_constrained_type, STATE 9093), (sym_member_type, STATE 8165),
    (sym_mlir_type, STATE 7017), (sym_list, STATE 7017), (sym_set, STATE 7017),
    (sym_tuple, STATE 7017), (sym_dictionary, STATE 7017), (sym_struct_literal, STATE 7017),
    (sym_list_comprehension, STATE 7017), (sym_dictionary_comprehension, STATE 7017),
    (sym_set_comprehension, STATE 7017), (sym_generator_expression, STATE 7017),
    (sym_parenthesized_expression, STATE 7017), (sym_conditional_expression, STATE 7969),
    (sym_concatenated_string, STATE 7017), (sym_string, STATE 6729), (sym_await, STATE 7017),
    (sym_identifier, ACTIONS 327), (anon_sym_import, ACTIONS 11), (anon_sym_from, ACTIONS 13),
    (anon_sym_LPAREN, ACTIONS 329), (anon_sym_STAR, ACTIONS 331), (anon_sym_print, ACTIONS 333),
    (anon_sym_comptime, ACTIONS 335), (anon_sym_assert, ACTIONS 23),
    (anon_sym___comptime_assert, ACTIONS 25), (anon_sym_return, ACTIONS 27),
    (anon_sym_del, ACTIONS 29), (anon_sym_raise, ACTIONS 31), (anon_sym_pass, ACTIONS 33),
    (anon_sym_break, ACTIONS 35), (anon_sym_continue, ACTIONS 37), (anon_sym_match, ACTIONS 337),
    (anon_sym_async, ACTIONS 339), (anon_sym_def, ACTIONS 341), (anon_sym_LBRACK, ACTIONS 343),
    (anon_sym_LBRACE, ACTIONS 61), (anon_sym_STAR_STAR, ACTIONS 345),
    (anon_sym_global, ACTIONS 63), (anon_sym_nonlocal, ACTIONS 65), (anon_sym_exec, ACTIONS 347),
    (anon_sym_type, ACTIONS 349), (anon_sym_mut, ACTIONS 339), (anon_sym_out, ACTIONS 339),
    (anon_sym_DASH, ACTIONS 79), (anon_sym_PLUS, ACTIONS 79), (anon_sym_ref, ACTIONS 81),
    (anon_sym_var, ACTIONS 81), (anon_sym_not, ACTIONS 83), (anon_sym_TILDE, ACTIONS 79),
    (anon_sym_lambda, ACTIONS 85), (anon_sym_yield, ACTIONS 87), (sym_ellipsis, ACTIONS 89),
    (anon_sym___mlir_type, ACTIONS 91), (sym_integer, ACTIONS 93), (sym_float, ACTIONS 89),
    (anon_sym_await, ACTIONS 351), (sym_true, ACTIONS 93), (sym_false, ACTIONS 93),
    (sym_none, ACTIONS 93), (sym_comment, ACTIONS 3), (sym_line_continuation, ACTIONS 3),
    (sym__newline, ACTIONS 453), (sym__indent, ACTIONS 455), (sym_string_start, ACTIONS 97)]"

definition parse_table_955 :: "(nat \<times> nat) list" where "parse_table_955 = [
    (sym__simple_statements, STATE 6160), (sym_import_statement, STATE 11814),
    (sym_future_import_statement, STATE 11814), (sym_import_from_statement, STATE 11814),
    (sym_print_statement, STATE 11814), (sym_assert_statement, STATE 11814),
    (sym_comptime_assert_statement, STATE 11814), (sym_expression_statement, STATE 11814),
    (sym_tuple_expression, STATE 12425), (sym_named_expression, STATE 7969),
    (sym__named_expression_lhs, STATE 12752), (sym_return_statement, STATE 11814),
    (sym_delete_statement, STATE 11814), (sym_raise_statement, STATE 11814),
    (sym_pass_statement, STATE 11814), (sym_break_statement, STATE 11814),
    (sym_continue_statement, STATE 11814), (sym_global_statement, STATE 11814),
    (sym_nonlocal_statement, STATE 11814), (sym_exec_statement, STATE 11814),
    (sym_type_alias_statement, STATE 11814), (sym_parameterized_alias_statement, STATE 11814),
    (sym_pattern, STATE 8086), (sym_tuple_pattern, STATE 8101), (sym_list_pattern, STATE 8101),
    (sym_list_splat_pattern, STATE 6795), (sym_as_pattern, STATE 7969),
    (sym_expression, STATE 9623), (sym_primary_expression, STATE 7326),
    (sym_comptime_expression, STATE 7017), (sym_transfer_expression, STATE 7017),
    (sym_not_operator, STATE 7969), (sym_boolean_operator, STATE 7969),
    (sym_binary_operator, STATE 7017), (sym_unary_operator, STATE 7017),
    (sym_comparison_operator, STATE 7969), (sym_lambda, STATE 7969),
    (sym_assignment, STATE 12425), (sym_augmented_assignment, STATE 12425),
    (sym_pattern_list, STATE 8578), (sym_yield, STATE 12425), (sym_attribute, STATE 6796),
    (sym_subscript, STATE 6797), (sym_call, STATE 6768), (sym_type, STATE 10130),
    (sym_called_type, STATE 9093), (sym_function_type, STATE 9093), (sym_splat_type, STATE 9093),
    (sym_generic_type, STATE 8287), (sym_union_type, STATE 9093),
    (sym_intersection_type, STATE 9093), (sym__intersection_operand, STATE 12294),
    (sym_constrained_type, STATE 9093), (sym_member_type, STATE 8165),
    (sym_mlir_type, STATE 7017), (sym_list, STATE 7017), (sym_set, STATE 7017),
    (sym_tuple, STATE 7017), (sym_dictionary, STATE 7017), (sym_struct_literal, STATE 7017),
    (sym_list_comprehension, STATE 7017), (sym_dictionary_comprehension, STATE 7017),
    (sym_set_comprehension, STATE 7017), (sym_generator_expression, STATE 7017),
    (sym_parenthesized_expression, STATE 7017), (sym_conditional_expression, STATE 7969),
    (sym_concatenated_string, STATE 7017), (sym_string, STATE 6729), (sym_await, STATE 7017),
    (sym_identifier, ACTIONS 327), (anon_sym_import, ACTIONS 11), (anon_sym_from, ACTIONS 13),
    (anon_sym_LPAREN, ACTIONS 329), (anon_sym_STAR, ACTIONS 331), (anon_sym_print, ACTIONS 333),
    (anon_sym_comptime, ACTIONS 335), (anon_sym_assert, ACTIONS 23),
    (anon_sym___comptime_assert, ACTIONS 25), (anon_sym_return, ACTIONS 27),
    (anon_sym_del, ACTIONS 29), (anon_sym_raise, ACTIONS 31), (anon_sym_pass, ACTIONS 33),
    (anon_sym_break, ACTIONS 35), (anon_sym_continue, ACTIONS 37), (anon_sym_match, ACTIONS 337),
    (anon_sym_async, ACTIONS 339), (anon_sym_def, ACTIONS 341), (anon_sym_LBRACK, ACTIONS 343),
    (anon_sym_LBRACE, ACTIONS 61), (anon_sym_STAR_STAR, ACTIONS 345),
    (anon_sym_global, ACTIONS 63), (anon_sym_nonlocal, ACTIONS 65), (anon_sym_exec, ACTIONS 347),
    (anon_sym_type, ACTIONS 349), (anon_sym_mut, ACTIONS 339), (anon_sym_out, ACTIONS 339),
    (anon_sym_DASH, ACTIONS 79), (anon_sym_PLUS, ACTIONS 79), (anon_sym_ref, ACTIONS 81),
    (anon_sym_var, ACTIONS 81), (anon_sym_not, ACTIONS 83), (anon_sym_TILDE, ACTIONS 79),
    (anon_sym_lambda, ACTIONS 85), (anon_sym_yield, ACTIONS 87), (sym_ellipsis, ACTIONS 89),
    (anon_sym___mlir_type, ACTIONS 91), (sym_integer, ACTIONS 93), (sym_float, ACTIONS 89),
    (anon_sym_await, ACTIONS 351), (sym_true, ACTIONS 93), (sym_false, ACTIONS 93),
    (sym_none, ACTIONS 93), (sym_comment, ACTIONS 3), (sym_line_continuation, ACTIONS 3),
    (sym__newline, ACTIONS 457), (sym__indent, ACTIONS 459), (sym_string_start, ACTIONS 97)]"

definition parse_table_956 :: "(nat \<times> nat) list" where "parse_table_956 = [
    (sym__simple_statements, STATE 6189), (sym_import_statement, STATE 12239),
    (sym_future_import_statement, STATE 12239), (sym_import_from_statement, STATE 12239),
    (sym_print_statement, STATE 12239), (sym_assert_statement, STATE 12239),
    (sym_comptime_assert_statement, STATE 12239), (sym_expression_statement, STATE 12239),
    (sym_tuple_expression, STATE 12425), (sym_named_expression, STATE 7969),
    (sym__named_expression_lhs, STATE 12752), (sym_return_statement, STATE 12239),
    (sym_delete_statement, STATE 12239), (sym_raise_statement, STATE 12239),
    (sym_pass_statement, STATE 12239), (sym_break_statement, STATE 12239),
    (sym_continue_statement, STATE 12239), (sym_global_statement, STATE 12239),
    (sym_nonlocal_statement, STATE 12239), (sym_exec_statement, STATE 12239),
    (sym_type_alias_statement, STATE 12239), (sym_parameterized_alias_statement, STATE 12239),
    (sym_pattern, STATE 8086), (sym_tuple_pattern, STATE 8101), (sym_list_pattern, STATE 8101),
    (sym_list_splat_pattern, STATE 6795), (sym_as_pattern, STATE 7969),
    (sym_expression, STATE 9623), (sym_primary_expression, STATE 7326),
    (sym_comptime_expression, STATE 7017), (sym_transfer_expression, STATE 7017),
    (sym_not_operator, STATE 7969), (sym_boolean_operator, STATE 7969),
    (sym_binary_operator, STATE 7017), (sym_unary_operator, STATE 7017),
    (sym_comparison_operator, STATE 7969), (sym_lambda, STATE 7969),
    (sym_assignment, STATE 12425), (sym_augmented_assignment, STATE 12425),
    (sym_pattern_list, STATE 8578), (sym_yield, STATE 12425), (sym_attribute, STATE 6796),
    (sym_subscript, STATE 6797), (sym_call, STATE 6768), (sym_type, STATE 10130),
    (sym_called_type, STATE 9093), (sym_function_type, STATE 9093), (sym_splat_type, STATE 9093),
    (sym_generic_type, STATE 8287), (sym_union_type, STATE 9093),
    (sym_intersection_type, STATE 9093), (sym__intersection_operand, STATE 12294),
    (sym_constrained_type, STATE 9093), (sym_member_type, STATE 8165),
    (sym_mlir_type, STATE 7017), (sym_list, STATE 7017), (sym_set, STATE 7017),
    (sym_tuple, STATE 7017), (sym_dictionary, STATE 7017), (sym_struct_literal, STATE 7017),
    (sym_list_comprehension, STATE 7017), (sym_dictionary_comprehension, STATE 7017),
    (sym_set_comprehension, STATE 7017), (sym_generator_expression, STATE 7017),
    (sym_parenthesized_expression, STATE 7017), (sym_conditional_expression, STATE 7969),
    (sym_concatenated_string, STATE 7017), (sym_string, STATE 6729), (sym_await, STATE 7017),
    (sym_identifier, ACTIONS 327), (anon_sym_import, ACTIONS 11), (anon_sym_from, ACTIONS 13),
    (anon_sym_LPAREN, ACTIONS 329), (anon_sym_STAR, ACTIONS 331), (anon_sym_print, ACTIONS 333),
    (anon_sym_comptime, ACTIONS 335), (anon_sym_assert, ACTIONS 23),
    (anon_sym___comptime_assert, ACTIONS 25), (anon_sym_return, ACTIONS 27),
    (anon_sym_del, ACTIONS 29), (anon_sym_raise, ACTIONS 31), (anon_sym_pass, ACTIONS 33),
    (anon_sym_break, ACTIONS 35), (anon_sym_continue, ACTIONS 37), (anon_sym_match, ACTIONS 337),
    (anon_sym_async, ACTIONS 339), (anon_sym_def, ACTIONS 341), (anon_sym_LBRACK, ACTIONS 343),
    (anon_sym_LBRACE, ACTIONS 61), (anon_sym_STAR_STAR, ACTIONS 345),
    (anon_sym_global, ACTIONS 63), (anon_sym_nonlocal, ACTIONS 65), (anon_sym_exec, ACTIONS 347),
    (anon_sym_type, ACTIONS 349), (anon_sym_mut, ACTIONS 339), (anon_sym_out, ACTIONS 339),
    (anon_sym_DASH, ACTIONS 79), (anon_sym_PLUS, ACTIONS 79), (anon_sym_ref, ACTIONS 81),
    (anon_sym_var, ACTIONS 81), (anon_sym_not, ACTIONS 83), (anon_sym_TILDE, ACTIONS 79),
    (anon_sym_lambda, ACTIONS 85), (anon_sym_yield, ACTIONS 87), (sym_ellipsis, ACTIONS 89),
    (anon_sym___mlir_type, ACTIONS 91), (sym_integer, ACTIONS 93), (sym_float, ACTIONS 89),
    (anon_sym_await, ACTIONS 351), (sym_true, ACTIONS 93), (sym_false, ACTIONS 93),
    (sym_none, ACTIONS 93), (sym_comment, ACTIONS 3), (sym_line_continuation, ACTIONS 3),
    (sym__newline, ACTIONS 461), (sym__indent, ACTIONS 463), (sym_string_start, ACTIONS 97)]"

definition parse_table_957 :: "(nat \<times> nat) list" where "parse_table_957 = [
    (sym__simple_statements, STATE 4772), (sym_import_statement, STATE 12239),
    (sym_future_import_statement, STATE 12239), (sym_import_from_statement, STATE 12239),
    (sym_print_statement, STATE 12239), (sym_assert_statement, STATE 12239),
    (sym_comptime_assert_statement, STATE 12239), (sym_expression_statement, STATE 12239),
    (sym_tuple_expression, STATE 12425), (sym_named_expression, STATE 7969),
    (sym__named_expression_lhs, STATE 12752), (sym_return_statement, STATE 12239),
    (sym_delete_statement, STATE 12239), (sym_raise_statement, STATE 12239),
    (sym_pass_statement, STATE 12239), (sym_break_statement, STATE 12239),
    (sym_continue_statement, STATE 12239), (sym_global_statement, STATE 12239),
    (sym_nonlocal_statement, STATE 12239), (sym_exec_statement, STATE 12239),
    (sym_type_alias_statement, STATE 12239), (sym_parameterized_alias_statement, STATE 12239),
    (sym_pattern, STATE 8086), (sym_tuple_pattern, STATE 8101), (sym_list_pattern, STATE 8101),
    (sym_list_splat_pattern, STATE 6795), (sym_as_pattern, STATE 7969),
    (sym_expression, STATE 9623), (sym_primary_expression, STATE 7326),
    (sym_comptime_expression, STATE 7017), (sym_transfer_expression, STATE 7017),
    (sym_not_operator, STATE 7969), (sym_boolean_operator, STATE 7969),
    (sym_binary_operator, STATE 7017), (sym_unary_operator, STATE 7017),
    (sym_comparison_operator, STATE 7969), (sym_lambda, STATE 7969),
    (sym_assignment, STATE 12425), (sym_augmented_assignment, STATE 12425),
    (sym_pattern_list, STATE 8578), (sym_yield, STATE 12425), (sym_attribute, STATE 6796),
    (sym_subscript, STATE 6797), (sym_call, STATE 6768), (sym_type, STATE 10130),
    (sym_called_type, STATE 9093), (sym_function_type, STATE 9093), (sym_splat_type, STATE 9093),
    (sym_generic_type, STATE 8287), (sym_union_type, STATE 9093),
    (sym_intersection_type, STATE 9093), (sym__intersection_operand, STATE 12294),
    (sym_constrained_type, STATE 9093), (sym_member_type, STATE 8165),
    (sym_mlir_type, STATE 7017), (sym_list, STATE 7017), (sym_set, STATE 7017),
    (sym_tuple, STATE 7017), (sym_dictionary, STATE 7017), (sym_struct_literal, STATE 7017),
    (sym_list_comprehension, STATE 7017), (sym_dictionary_comprehension, STATE 7017),
    (sym_set_comprehension, STATE 7017), (sym_generator_expression, STATE 7017),
    (sym_parenthesized_expression, STATE 7017), (sym_conditional_expression, STATE 7969),
    (sym_concatenated_string, STATE 7017), (sym_string, STATE 6729), (sym_await, STATE 7017),
    (sym_identifier, ACTIONS 327), (anon_sym_import, ACTIONS 11), (anon_sym_from, ACTIONS 13),
    (anon_sym_LPAREN, ACTIONS 329), (anon_sym_STAR, ACTIONS 331), (anon_sym_print, ACTIONS 333),
    (anon_sym_comptime, ACTIONS 335), (anon_sym_assert, ACTIONS 23),
    (anon_sym___comptime_assert, ACTIONS 25), (anon_sym_return, ACTIONS 27),
    (anon_sym_del, ACTIONS 29), (anon_sym_raise, ACTIONS 31), (anon_sym_pass, ACTIONS 33),
    (anon_sym_break, ACTIONS 35), (anon_sym_continue, ACTIONS 37), (anon_sym_match, ACTIONS 337),
    (anon_sym_async, ACTIONS 339), (anon_sym_def, ACTIONS 341), (anon_sym_LBRACK, ACTIONS 343),
    (anon_sym_LBRACE, ACTIONS 61), (anon_sym_STAR_STAR, ACTIONS 345),
    (anon_sym_global, ACTIONS 63), (anon_sym_nonlocal, ACTIONS 65), (anon_sym_exec, ACTIONS 347),
    (anon_sym_type, ACTIONS 349), (anon_sym_mut, ACTIONS 339), (anon_sym_out, ACTIONS 339),
    (anon_sym_DASH, ACTIONS 79), (anon_sym_PLUS, ACTIONS 79), (anon_sym_ref, ACTIONS 81),
    (anon_sym_var, ACTIONS 81), (anon_sym_not, ACTIONS 83), (anon_sym_TILDE, ACTIONS 79),
    (anon_sym_lambda, ACTIONS 85), (anon_sym_yield, ACTIONS 87), (sym_ellipsis, ACTIONS 89),
    (anon_sym___mlir_type, ACTIONS 91), (sym_integer, ACTIONS 93), (sym_float, ACTIONS 89),
    (anon_sym_await, ACTIONS 351), (sym_true, ACTIONS 93), (sym_false, ACTIONS 93),
    (sym_none, ACTIONS 93), (sym_comment, ACTIONS 3), (sym_line_continuation, ACTIONS 3),
    (sym__newline, ACTIONS 465), (sym__indent, ACTIONS 467), (sym_string_start, ACTIONS 97)]"

definition parse_table_958 :: "(nat \<times> nat) list" where "parse_table_958 = [
    (sym__simple_statements, STATE 6167), (sym_import_statement, STATE 11814),
    (sym_future_import_statement, STATE 11814), (sym_import_from_statement, STATE 11814),
    (sym_print_statement, STATE 11814), (sym_assert_statement, STATE 11814),
    (sym_comptime_assert_statement, STATE 11814), (sym_expression_statement, STATE 11814),
    (sym_tuple_expression, STATE 12425), (sym_named_expression, STATE 7969),
    (sym__named_expression_lhs, STATE 12752), (sym_return_statement, STATE 11814),
    (sym_delete_statement, STATE 11814), (sym_raise_statement, STATE 11814),
    (sym_pass_statement, STATE 11814), (sym_break_statement, STATE 11814),
    (sym_continue_statement, STATE 11814), (sym_global_statement, STATE 11814),
    (sym_nonlocal_statement, STATE 11814), (sym_exec_statement, STATE 11814),
    (sym_type_alias_statement, STATE 11814), (sym_parameterized_alias_statement, STATE 11814),
    (sym_pattern, STATE 8086), (sym_tuple_pattern, STATE 8101), (sym_list_pattern, STATE 8101),
    (sym_list_splat_pattern, STATE 6795), (sym_as_pattern, STATE 7969),
    (sym_expression, STATE 9623), (sym_primary_expression, STATE 7326),
    (sym_comptime_expression, STATE 7017), (sym_transfer_expression, STATE 7017),
    (sym_not_operator, STATE 7969), (sym_boolean_operator, STATE 7969),
    (sym_binary_operator, STATE 7017), (sym_unary_operator, STATE 7017),
    (sym_comparison_operator, STATE 7969), (sym_lambda, STATE 7969),
    (sym_assignment, STATE 12425), (sym_augmented_assignment, STATE 12425),
    (sym_pattern_list, STATE 8578), (sym_yield, STATE 12425), (sym_attribute, STATE 6796),
    (sym_subscript, STATE 6797), (sym_call, STATE 6768), (sym_type, STATE 10130),
    (sym_called_type, STATE 9093), (sym_function_type, STATE 9093), (sym_splat_type, STATE 9093),
    (sym_generic_type, STATE 8287), (sym_union_type, STATE 9093),
    (sym_intersection_type, STATE 9093), (sym__intersection_operand, STATE 12294),
    (sym_constrained_type, STATE 9093), (sym_member_type, STATE 8165),
    (sym_mlir_type, STATE 7017), (sym_list, STATE 7017), (sym_set, STATE 7017),
    (sym_tuple, STATE 7017), (sym_dictionary, STATE 7017), (sym_struct_literal, STATE 7017),
    (sym_list_comprehension, STATE 7017), (sym_dictionary_comprehension, STATE 7017),
    (sym_set_comprehension, STATE 7017), (sym_generator_expression, STATE 7017),
    (sym_parenthesized_expression, STATE 7017), (sym_conditional_expression, STATE 7969),
    (sym_concatenated_string, STATE 7017), (sym_string, STATE 6729), (sym_await, STATE 7017),
    (sym_identifier, ACTIONS 327), (anon_sym_import, ACTIONS 11), (anon_sym_from, ACTIONS 13),
    (anon_sym_LPAREN, ACTIONS 329), (anon_sym_STAR, ACTIONS 331), (anon_sym_print, ACTIONS 333),
    (anon_sym_comptime, ACTIONS 335), (anon_sym_assert, ACTIONS 23),
    (anon_sym___comptime_assert, ACTIONS 25), (anon_sym_return, ACTIONS 27),
    (anon_sym_del, ACTIONS 29), (anon_sym_raise, ACTIONS 31), (anon_sym_pass, ACTIONS 33),
    (anon_sym_break, ACTIONS 35), (anon_sym_continue, ACTIONS 37), (anon_sym_match, ACTIONS 337),
    (anon_sym_async, ACTIONS 339), (anon_sym_def, ACTIONS 341), (anon_sym_LBRACK, ACTIONS 343),
    (anon_sym_LBRACE, ACTIONS 61), (anon_sym_STAR_STAR, ACTIONS 345),
    (anon_sym_global, ACTIONS 63), (anon_sym_nonlocal, ACTIONS 65), (anon_sym_exec, ACTIONS 347),
    (anon_sym_type, ACTIONS 349), (anon_sym_mut, ACTIONS 339), (anon_sym_out, ACTIONS 339),
    (anon_sym_DASH, ACTIONS 79), (anon_sym_PLUS, ACTIONS 79), (anon_sym_ref, ACTIONS 81),
    (anon_sym_var, ACTIONS 81), (anon_sym_not, ACTIONS 83), (anon_sym_TILDE, ACTIONS 79),
    (anon_sym_lambda, ACTIONS 85), (anon_sym_yield, ACTIONS 87), (sym_ellipsis, ACTIONS 89),
    (anon_sym___mlir_type, ACTIONS 91), (sym_integer, ACTIONS 93), (sym_float, ACTIONS 89),
    (anon_sym_await, ACTIONS 351), (sym_true, ACTIONS 93), (sym_false, ACTIONS 93),
    (sym_none, ACTIONS 93), (sym_comment, ACTIONS 3), (sym_line_continuation, ACTIONS 3),
    (sym__newline, ACTIONS 469), (sym__indent, ACTIONS 471), (sym_string_start, ACTIONS 97)]"

definition parse_table_959 :: "(nat \<times> nat) list" where "parse_table_959 = [
    (sym__simple_statements, STATE 4981), (sym_import_statement, STATE 11814),
    (sym_future_import_statement, STATE 11814), (sym_import_from_statement, STATE 11814),
    (sym_print_statement, STATE 11814), (sym_assert_statement, STATE 11814),
    (sym_comptime_assert_statement, STATE 11814), (sym_expression_statement, STATE 11814),
    (sym_tuple_expression, STATE 12425), (sym_named_expression, STATE 7969),
    (sym__named_expression_lhs, STATE 12752), (sym_return_statement, STATE 11814),
    (sym_delete_statement, STATE 11814), (sym_raise_statement, STATE 11814),
    (sym_pass_statement, STATE 11814), (sym_break_statement, STATE 11814),
    (sym_continue_statement, STATE 11814), (sym_global_statement, STATE 11814),
    (sym_nonlocal_statement, STATE 11814), (sym_exec_statement, STATE 11814),
    (sym_type_alias_statement, STATE 11814), (sym_parameterized_alias_statement, STATE 11814),
    (sym_pattern, STATE 8086), (sym_tuple_pattern, STATE 8101), (sym_list_pattern, STATE 8101),
    (sym_list_splat_pattern, STATE 6795), (sym_as_pattern, STATE 7969),
    (sym_expression, STATE 9623), (sym_primary_expression, STATE 7326),
    (sym_comptime_expression, STATE 7017), (sym_transfer_expression, STATE 7017),
    (sym_not_operator, STATE 7969), (sym_boolean_operator, STATE 7969),
    (sym_binary_operator, STATE 7017), (sym_unary_operator, STATE 7017),
    (sym_comparison_operator, STATE 7969), (sym_lambda, STATE 7969),
    (sym_assignment, STATE 12425), (sym_augmented_assignment, STATE 12425),
    (sym_pattern_list, STATE 8578), (sym_yield, STATE 12425), (sym_attribute, STATE 6796),
    (sym_subscript, STATE 6797), (sym_call, STATE 6768), (sym_type, STATE 10130),
    (sym_called_type, STATE 9093), (sym_function_type, STATE 9093), (sym_splat_type, STATE 9093),
    (sym_generic_type, STATE 8287), (sym_union_type, STATE 9093),
    (sym_intersection_type, STATE 9093), (sym__intersection_operand, STATE 12294),
    (sym_constrained_type, STATE 9093), (sym_member_type, STATE 8165),
    (sym_mlir_type, STATE 7017), (sym_list, STATE 7017), (sym_set, STATE 7017),
    (sym_tuple, STATE 7017), (sym_dictionary, STATE 7017), (sym_struct_literal, STATE 7017),
    (sym_list_comprehension, STATE 7017), (sym_dictionary_comprehension, STATE 7017),
    (sym_set_comprehension, STATE 7017), (sym_generator_expression, STATE 7017),
    (sym_parenthesized_expression, STATE 7017), (sym_conditional_expression, STATE 7969),
    (sym_concatenated_string, STATE 7017), (sym_string, STATE 6729), (sym_await, STATE 7017),
    (sym_identifier, ACTIONS 327), (anon_sym_import, ACTIONS 11), (anon_sym_from, ACTIONS 13),
    (anon_sym_LPAREN, ACTIONS 329), (anon_sym_STAR, ACTIONS 331), (anon_sym_print, ACTIONS 333),
    (anon_sym_comptime, ACTIONS 335), (anon_sym_assert, ACTIONS 23),
    (anon_sym___comptime_assert, ACTIONS 25), (anon_sym_return, ACTIONS 27),
    (anon_sym_del, ACTIONS 29), (anon_sym_raise, ACTIONS 31), (anon_sym_pass, ACTIONS 33),
    (anon_sym_break, ACTIONS 35), (anon_sym_continue, ACTIONS 37), (anon_sym_match, ACTIONS 337),
    (anon_sym_async, ACTIONS 339), (anon_sym_def, ACTIONS 341), (anon_sym_LBRACK, ACTIONS 343),
    (anon_sym_LBRACE, ACTIONS 61), (anon_sym_STAR_STAR, ACTIONS 345),
    (anon_sym_global, ACTIONS 63), (anon_sym_nonlocal, ACTIONS 65), (anon_sym_exec, ACTIONS 347),
    (anon_sym_type, ACTIONS 349), (anon_sym_mut, ACTIONS 339), (anon_sym_out, ACTIONS 339),
    (anon_sym_DASH, ACTIONS 79), (anon_sym_PLUS, ACTIONS 79), (anon_sym_ref, ACTIONS 81),
    (anon_sym_var, ACTIONS 81), (anon_sym_not, ACTIONS 83), (anon_sym_TILDE, ACTIONS 79),
    (anon_sym_lambda, ACTIONS 85), (anon_sym_yield, ACTIONS 87), (sym_ellipsis, ACTIONS 89),
    (anon_sym___mlir_type, ACTIONS 91), (sym_integer, ACTIONS 93), (sym_float, ACTIONS 89),
    (anon_sym_await, ACTIONS 351), (sym_true, ACTIONS 93), (sym_false, ACTIONS 93),
    (sym_none, ACTIONS 93), (sym_comment, ACTIONS 3), (sym_line_continuation, ACTIONS 3),
    (sym__newline, ACTIONS 473), (sym__indent, ACTIONS 475), (sym_string_start, ACTIONS 97)]"

definition parse_table_960 :: "(nat \<times> nat) list" where "parse_table_960 = [
    (sym__simple_statements, STATE 4987), (sym_import_statement, STATE 11814),
    (sym_future_import_statement, STATE 11814), (sym_import_from_statement, STATE 11814),
    (sym_print_statement, STATE 11814), (sym_assert_statement, STATE 11814),
    (sym_comptime_assert_statement, STATE 11814), (sym_expression_statement, STATE 11814),
    (sym_tuple_expression, STATE 12425), (sym_named_expression, STATE 7969),
    (sym__named_expression_lhs, STATE 12752), (sym_return_statement, STATE 11814),
    (sym_delete_statement, STATE 11814), (sym_raise_statement, STATE 11814),
    (sym_pass_statement, STATE 11814), (sym_break_statement, STATE 11814),
    (sym_continue_statement, STATE 11814), (sym_global_statement, STATE 11814),
    (sym_nonlocal_statement, STATE 11814), (sym_exec_statement, STATE 11814),
    (sym_type_alias_statement, STATE 11814), (sym_parameterized_alias_statement, STATE 11814),
    (sym_pattern, STATE 8086), (sym_tuple_pattern, STATE 8101), (sym_list_pattern, STATE 8101),
    (sym_list_splat_pattern, STATE 6795), (sym_as_pattern, STATE 7969),
    (sym_expression, STATE 9623), (sym_primary_expression, STATE 7326),
    (sym_comptime_expression, STATE 7017), (sym_transfer_expression, STATE 7017),
    (sym_not_operator, STATE 7969), (sym_boolean_operator, STATE 7969),
    (sym_binary_operator, STATE 7017), (sym_unary_operator, STATE 7017),
    (sym_comparison_operator, STATE 7969), (sym_lambda, STATE 7969),
    (sym_assignment, STATE 12425), (sym_augmented_assignment, STATE 12425),
    (sym_pattern_list, STATE 8578), (sym_yield, STATE 12425), (sym_attribute, STATE 6796),
    (sym_subscript, STATE 6797), (sym_call, STATE 6768), (sym_type, STATE 10130),
    (sym_called_type, STATE 9093), (sym_function_type, STATE 9093), (sym_splat_type, STATE 9093),
    (sym_generic_type, STATE 8287), (sym_union_type, STATE 9093),
    (sym_intersection_type, STATE 9093), (sym__intersection_operand, STATE 12294),
    (sym_constrained_type, STATE 9093), (sym_member_type, STATE 8165),
    (sym_mlir_type, STATE 7017), (sym_list, STATE 7017), (sym_set, STATE 7017),
    (sym_tuple, STATE 7017), (sym_dictionary, STATE 7017), (sym_struct_literal, STATE 7017),
    (sym_list_comprehension, STATE 7017), (sym_dictionary_comprehension, STATE 7017),
    (sym_set_comprehension, STATE 7017), (sym_generator_expression, STATE 7017),
    (sym_parenthesized_expression, STATE 7017), (sym_conditional_expression, STATE 7969),
    (sym_concatenated_string, STATE 7017), (sym_string, STATE 6729), (sym_await, STATE 7017),
    (sym_identifier, ACTIONS 327), (anon_sym_import, ACTIONS 11), (anon_sym_from, ACTIONS 13),
    (anon_sym_LPAREN, ACTIONS 329), (anon_sym_STAR, ACTIONS 331), (anon_sym_print, ACTIONS 333),
    (anon_sym_comptime, ACTIONS 335), (anon_sym_assert, ACTIONS 23),
    (anon_sym___comptime_assert, ACTIONS 25), (anon_sym_return, ACTIONS 27),
    (anon_sym_del, ACTIONS 29), (anon_sym_raise, ACTIONS 31), (anon_sym_pass, ACTIONS 33),
    (anon_sym_break, ACTIONS 35), (anon_sym_continue, ACTIONS 37), (anon_sym_match, ACTIONS 337),
    (anon_sym_async, ACTIONS 339), (anon_sym_def, ACTIONS 341), (anon_sym_LBRACK, ACTIONS 343),
    (anon_sym_LBRACE, ACTIONS 61), (anon_sym_STAR_STAR, ACTIONS 345),
    (anon_sym_global, ACTIONS 63), (anon_sym_nonlocal, ACTIONS 65), (anon_sym_exec, ACTIONS 347),
    (anon_sym_type, ACTIONS 349), (anon_sym_mut, ACTIONS 339), (anon_sym_out, ACTIONS 339),
    (anon_sym_DASH, ACTIONS 79), (anon_sym_PLUS, ACTIONS 79), (anon_sym_ref, ACTIONS 81),
    (anon_sym_var, ACTIONS 81), (anon_sym_not, ACTIONS 83), (anon_sym_TILDE, ACTIONS 79),
    (anon_sym_lambda, ACTIONS 85), (anon_sym_yield, ACTIONS 87), (sym_ellipsis, ACTIONS 89),
    (anon_sym___mlir_type, ACTIONS 91), (sym_integer, ACTIONS 93), (sym_float, ACTIONS 89),
    (anon_sym_await, ACTIONS 351), (sym_true, ACTIONS 93), (sym_false, ACTIONS 93),
    (sym_none, ACTIONS 93), (sym_comment, ACTIONS 3), (sym_line_continuation, ACTIONS 3),
    (sym__newline, ACTIONS 477), (sym__indent, ACTIONS 479), (sym_string_start, ACTIONS 97)]"

definition parse_table_961 :: "(nat \<times> nat) list" where "parse_table_961 = [
    (sym__simple_statements, STATE 6175), (sym_import_statement, STATE 11814),
    (sym_future_import_statement, STATE 11814), (sym_import_from_statement, STATE 11814),
    (sym_print_statement, STATE 11814), (sym_assert_statement, STATE 11814),
    (sym_comptime_assert_statement, STATE 11814), (sym_expression_statement, STATE 11814),
    (sym_tuple_expression, STATE 12425), (sym_named_expression, STATE 7969),
    (sym__named_expression_lhs, STATE 12752), (sym_return_statement, STATE 11814),
    (sym_delete_statement, STATE 11814), (sym_raise_statement, STATE 11814),
    (sym_pass_statement, STATE 11814), (sym_break_statement, STATE 11814),
    (sym_continue_statement, STATE 11814), (sym_global_statement, STATE 11814),
    (sym_nonlocal_statement, STATE 11814), (sym_exec_statement, STATE 11814),
    (sym_type_alias_statement, STATE 11814), (sym_parameterized_alias_statement, STATE 11814),
    (sym_pattern, STATE 8086), (sym_tuple_pattern, STATE 8101), (sym_list_pattern, STATE 8101),
    (sym_list_splat_pattern, STATE 6795), (sym_as_pattern, STATE 7969),
    (sym_expression, STATE 9623), (sym_primary_expression, STATE 7326),
    (sym_comptime_expression, STATE 7017), (sym_transfer_expression, STATE 7017),
    (sym_not_operator, STATE 7969), (sym_boolean_operator, STATE 7969),
    (sym_binary_operator, STATE 7017), (sym_unary_operator, STATE 7017),
    (sym_comparison_operator, STATE 7969), (sym_lambda, STATE 7969),
    (sym_assignment, STATE 12425), (sym_augmented_assignment, STATE 12425),
    (sym_pattern_list, STATE 8578), (sym_yield, STATE 12425), (sym_attribute, STATE 6796),
    (sym_subscript, STATE 6797), (sym_call, STATE 6768), (sym_type, STATE 10130),
    (sym_called_type, STATE 9093), (sym_function_type, STATE 9093), (sym_splat_type, STATE 9093),
    (sym_generic_type, STATE 8287), (sym_union_type, STATE 9093),
    (sym_intersection_type, STATE 9093), (sym__intersection_operand, STATE 12294),
    (sym_constrained_type, STATE 9093), (sym_member_type, STATE 8165),
    (sym_mlir_type, STATE 7017), (sym_list, STATE 7017), (sym_set, STATE 7017),
    (sym_tuple, STATE 7017), (sym_dictionary, STATE 7017), (sym_struct_literal, STATE 7017),
    (sym_list_comprehension, STATE 7017), (sym_dictionary_comprehension, STATE 7017),
    (sym_set_comprehension, STATE 7017), (sym_generator_expression, STATE 7017),
    (sym_parenthesized_expression, STATE 7017), (sym_conditional_expression, STATE 7969),
    (sym_concatenated_string, STATE 7017), (sym_string, STATE 6729), (sym_await, STATE 7017),
    (sym_identifier, ACTIONS 327), (anon_sym_import, ACTIONS 11), (anon_sym_from, ACTIONS 13),
    (anon_sym_LPAREN, ACTIONS 329), (anon_sym_STAR, ACTIONS 331), (anon_sym_print, ACTIONS 333),
    (anon_sym_comptime, ACTIONS 335), (anon_sym_assert, ACTIONS 23),
    (anon_sym___comptime_assert, ACTIONS 25), (anon_sym_return, ACTIONS 27),
    (anon_sym_del, ACTIONS 29), (anon_sym_raise, ACTIONS 31), (anon_sym_pass, ACTIONS 33),
    (anon_sym_break, ACTIONS 35), (anon_sym_continue, ACTIONS 37), (anon_sym_match, ACTIONS 337),
    (anon_sym_async, ACTIONS 339), (anon_sym_def, ACTIONS 341), (anon_sym_LBRACK, ACTIONS 343),
    (anon_sym_LBRACE, ACTIONS 61), (anon_sym_STAR_STAR, ACTIONS 345),
    (anon_sym_global, ACTIONS 63), (anon_sym_nonlocal, ACTIONS 65), (anon_sym_exec, ACTIONS 347),
    (anon_sym_type, ACTIONS 349), (anon_sym_mut, ACTIONS 339), (anon_sym_out, ACTIONS 339),
    (anon_sym_DASH, ACTIONS 79), (anon_sym_PLUS, ACTIONS 79), (anon_sym_ref, ACTIONS 81),
    (anon_sym_var, ACTIONS 81), (anon_sym_not, ACTIONS 83), (anon_sym_TILDE, ACTIONS 79),
    (anon_sym_lambda, ACTIONS 85), (anon_sym_yield, ACTIONS 87), (sym_ellipsis, ACTIONS 89),
    (anon_sym___mlir_type, ACTIONS 91), (sym_integer, ACTIONS 93), (sym_float, ACTIONS 89),
    (anon_sym_await, ACTIONS 351), (sym_true, ACTIONS 93), (sym_false, ACTIONS 93),
    (sym_none, ACTIONS 93), (sym_comment, ACTIONS 3), (sym_line_continuation, ACTIONS 3),
    (sym__newline, ACTIONS 481), (sym__indent, ACTIONS 483), (sym_string_start, ACTIONS 97)]"

definition parse_table_962 :: "(nat \<times> nat) list" where "parse_table_962 = [
    (sym__simple_statements, STATE 6570), (sym_import_statement, STATE 12239),
    (sym_future_import_statement, STATE 12239), (sym_import_from_statement, STATE 12239),
    (sym_print_statement, STATE 12239), (sym_assert_statement, STATE 12239),
    (sym_comptime_assert_statement, STATE 12239), (sym_expression_statement, STATE 12239),
    (sym_tuple_expression, STATE 12425), (sym_named_expression, STATE 7969),
    (sym__named_expression_lhs, STATE 12752), (sym_return_statement, STATE 12239),
    (sym_delete_statement, STATE 12239), (sym_raise_statement, STATE 12239),
    (sym_pass_statement, STATE 12239), (sym_break_statement, STATE 12239),
    (sym_continue_statement, STATE 12239), (sym_global_statement, STATE 12239),
    (sym_nonlocal_statement, STATE 12239), (sym_exec_statement, STATE 12239),
    (sym_type_alias_statement, STATE 12239), (sym_parameterized_alias_statement, STATE 12239),
    (sym_pattern, STATE 8086), (sym_tuple_pattern, STATE 8101), (sym_list_pattern, STATE 8101),
    (sym_list_splat_pattern, STATE 6795), (sym_as_pattern, STATE 7969),
    (sym_expression, STATE 9623), (sym_primary_expression, STATE 7326),
    (sym_comptime_expression, STATE 7017), (sym_transfer_expression, STATE 7017),
    (sym_not_operator, STATE 7969), (sym_boolean_operator, STATE 7969),
    (sym_binary_operator, STATE 7017), (sym_unary_operator, STATE 7017),
    (sym_comparison_operator, STATE 7969), (sym_lambda, STATE 7969),
    (sym_assignment, STATE 12425), (sym_augmented_assignment, STATE 12425),
    (sym_pattern_list, STATE 8578), (sym_yield, STATE 12425), (sym_attribute, STATE 6796),
    (sym_subscript, STATE 6797), (sym_call, STATE 6768), (sym_type, STATE 10130),
    (sym_called_type, STATE 9093), (sym_function_type, STATE 9093), (sym_splat_type, STATE 9093),
    (sym_generic_type, STATE 8287), (sym_union_type, STATE 9093),
    (sym_intersection_type, STATE 9093), (sym__intersection_operand, STATE 12294),
    (sym_constrained_type, STATE 9093), (sym_member_type, STATE 8165),
    (sym_mlir_type, STATE 7017), (sym_list, STATE 7017), (sym_set, STATE 7017),
    (sym_tuple, STATE 7017), (sym_dictionary, STATE 7017), (sym_struct_literal, STATE 7017),
    (sym_list_comprehension, STATE 7017), (sym_dictionary_comprehension, STATE 7017),
    (sym_set_comprehension, STATE 7017), (sym_generator_expression, STATE 7017),
    (sym_parenthesized_expression, STATE 7017), (sym_conditional_expression, STATE 7969),
    (sym_concatenated_string, STATE 7017), (sym_string, STATE 6729), (sym_await, STATE 7017),
    (sym_identifier, ACTIONS 327), (anon_sym_import, ACTIONS 11), (anon_sym_from, ACTIONS 13),
    (anon_sym_LPAREN, ACTIONS 329), (anon_sym_STAR, ACTIONS 331), (anon_sym_print, ACTIONS 333),
    (anon_sym_comptime, ACTIONS 335), (anon_sym_assert, ACTIONS 23),
    (anon_sym___comptime_assert, ACTIONS 25), (anon_sym_return, ACTIONS 27),
    (anon_sym_del, ACTIONS 29), (anon_sym_raise, ACTIONS 31), (anon_sym_pass, ACTIONS 33),
    (anon_sym_break, ACTIONS 35), (anon_sym_continue, ACTIONS 37), (anon_sym_match, ACTIONS 337),
    (anon_sym_async, ACTIONS 339), (anon_sym_def, ACTIONS 341), (anon_sym_LBRACK, ACTIONS 343),
    (anon_sym_LBRACE, ACTIONS 61), (anon_sym_STAR_STAR, ACTIONS 345),
    (anon_sym_global, ACTIONS 63), (anon_sym_nonlocal, ACTIONS 65), (anon_sym_exec, ACTIONS 347),
    (anon_sym_type, ACTIONS 349), (anon_sym_mut, ACTIONS 339), (anon_sym_out, ACTIONS 339),
    (anon_sym_DASH, ACTIONS 79), (anon_sym_PLUS, ACTIONS 79), (anon_sym_ref, ACTIONS 81),
    (anon_sym_var, ACTIONS 81), (anon_sym_not, ACTIONS 83), (anon_sym_TILDE, ACTIONS 79),
    (anon_sym_lambda, ACTIONS 85), (anon_sym_yield, ACTIONS 87), (sym_ellipsis, ACTIONS 89),
    (anon_sym___mlir_type, ACTIONS 91), (sym_integer, ACTIONS 93), (sym_float, ACTIONS 89),
    (anon_sym_await, ACTIONS 351), (sym_true, ACTIONS 93), (sym_false, ACTIONS 93),
    (sym_none, ACTIONS 93), (sym_comment, ACTIONS 3), (sym_line_continuation, ACTIONS 3),
    (sym__newline, ACTIONS 485), (sym__indent, ACTIONS 487), (sym_string_start, ACTIONS 97)]"

definition parse_table_963 :: "(nat \<times> nat) list" where "parse_table_963 = [
    (sym__simple_statements, STATE 4997), (sym_import_statement, STATE 11814),
    (sym_future_import_statement, STATE 11814), (sym_import_from_statement, STATE 11814),
    (sym_print_statement, STATE 11814), (sym_assert_statement, STATE 11814),
    (sym_comptime_assert_statement, STATE 11814), (sym_expression_statement, STATE 11814),
    (sym_tuple_expression, STATE 12425), (sym_named_expression, STATE 7969),
    (sym__named_expression_lhs, STATE 12752), (sym_return_statement, STATE 11814),
    (sym_delete_statement, STATE 11814), (sym_raise_statement, STATE 11814),
    (sym_pass_statement, STATE 11814), (sym_break_statement, STATE 11814),
    (sym_continue_statement, STATE 11814), (sym_global_statement, STATE 11814),
    (sym_nonlocal_statement, STATE 11814), (sym_exec_statement, STATE 11814),
    (sym_type_alias_statement, STATE 11814), (sym_parameterized_alias_statement, STATE 11814),
    (sym_pattern, STATE 8086), (sym_tuple_pattern, STATE 8101), (sym_list_pattern, STATE 8101),
    (sym_list_splat_pattern, STATE 6795), (sym_as_pattern, STATE 7969),
    (sym_expression, STATE 9623), (sym_primary_expression, STATE 7326),
    (sym_comptime_expression, STATE 7017), (sym_transfer_expression, STATE 7017),
    (sym_not_operator, STATE 7969), (sym_boolean_operator, STATE 7969),
    (sym_binary_operator, STATE 7017), (sym_unary_operator, STATE 7017),
    (sym_comparison_operator, STATE 7969), (sym_lambda, STATE 7969),
    (sym_assignment, STATE 12425), (sym_augmented_assignment, STATE 12425),
    (sym_pattern_list, STATE 8578), (sym_yield, STATE 12425), (sym_attribute, STATE 6796),
    (sym_subscript, STATE 6797), (sym_call, STATE 6768), (sym_type, STATE 10130),
    (sym_called_type, STATE 9093), (sym_function_type, STATE 9093), (sym_splat_type, STATE 9093),
    (sym_generic_type, STATE 8287), (sym_union_type, STATE 9093),
    (sym_intersection_type, STATE 9093), (sym__intersection_operand, STATE 12294),
    (sym_constrained_type, STATE 9093), (sym_member_type, STATE 8165),
    (sym_mlir_type, STATE 7017), (sym_list, STATE 7017), (sym_set, STATE 7017),
    (sym_tuple, STATE 7017), (sym_dictionary, STATE 7017), (sym_struct_literal, STATE 7017),
    (sym_list_comprehension, STATE 7017), (sym_dictionary_comprehension, STATE 7017),
    (sym_set_comprehension, STATE 7017), (sym_generator_expression, STATE 7017),
    (sym_parenthesized_expression, STATE 7017), (sym_conditional_expression, STATE 7969),
    (sym_concatenated_string, STATE 7017), (sym_string, STATE 6729), (sym_await, STATE 7017),
    (sym_identifier, ACTIONS 327), (anon_sym_import, ACTIONS 11), (anon_sym_from, ACTIONS 13),
    (anon_sym_LPAREN, ACTIONS 329), (anon_sym_STAR, ACTIONS 331), (anon_sym_print, ACTIONS 333),
    (anon_sym_comptime, ACTIONS 335), (anon_sym_assert, ACTIONS 23),
    (anon_sym___comptime_assert, ACTIONS 25), (anon_sym_return, ACTIONS 27),
    (anon_sym_del, ACTIONS 29), (anon_sym_raise, ACTIONS 31), (anon_sym_pass, ACTIONS 33),
    (anon_sym_break, ACTIONS 35), (anon_sym_continue, ACTIONS 37), (anon_sym_match, ACTIONS 337),
    (anon_sym_async, ACTIONS 339), (anon_sym_def, ACTIONS 341), (anon_sym_LBRACK, ACTIONS 343),
    (anon_sym_LBRACE, ACTIONS 61), (anon_sym_STAR_STAR, ACTIONS 345),
    (anon_sym_global, ACTIONS 63), (anon_sym_nonlocal, ACTIONS 65), (anon_sym_exec, ACTIONS 347),
    (anon_sym_type, ACTIONS 349), (anon_sym_mut, ACTIONS 339), (anon_sym_out, ACTIONS 339),
    (anon_sym_DASH, ACTIONS 79), (anon_sym_PLUS, ACTIONS 79), (anon_sym_ref, ACTIONS 81),
    (anon_sym_var, ACTIONS 81), (anon_sym_not, ACTIONS 83), (anon_sym_TILDE, ACTIONS 79),
    (anon_sym_lambda, ACTIONS 85), (anon_sym_yield, ACTIONS 87), (sym_ellipsis, ACTIONS 89),
    (anon_sym___mlir_type, ACTIONS 91), (sym_integer, ACTIONS 93), (sym_float, ACTIONS 89),
    (anon_sym_await, ACTIONS 351), (sym_true, ACTIONS 93), (sym_false, ACTIONS 93),
    (sym_none, ACTIONS 93), (sym_comment, ACTIONS 3), (sym_line_continuation, ACTIONS 3),
    (sym__newline, ACTIONS 489), (sym__indent, ACTIONS 491), (sym_string_start, ACTIONS 97)]"

definition parse_table_964 :: "(nat \<times> nat) list" where "parse_table_964 = [
    (sym__simple_statements, STATE 5257), (sym_import_statement, STATE 12239),
    (sym_future_import_statement, STATE 12239), (sym_import_from_statement, STATE 12239),
    (sym_print_statement, STATE 12239), (sym_assert_statement, STATE 12239),
    (sym_comptime_assert_statement, STATE 12239), (sym_expression_statement, STATE 12239),
    (sym_tuple_expression, STATE 12425), (sym_named_expression, STATE 7969),
    (sym__named_expression_lhs, STATE 12752), (sym_return_statement, STATE 12239),
    (sym_delete_statement, STATE 12239), (sym_raise_statement, STATE 12239),
    (sym_pass_statement, STATE 12239), (sym_break_statement, STATE 12239),
    (sym_continue_statement, STATE 12239), (sym_global_statement, STATE 12239),
    (sym_nonlocal_statement, STATE 12239), (sym_exec_statement, STATE 12239),
    (sym_type_alias_statement, STATE 12239), (sym_parameterized_alias_statement, STATE 12239),
    (sym_pattern, STATE 8086), (sym_tuple_pattern, STATE 8101), (sym_list_pattern, STATE 8101),
    (sym_list_splat_pattern, STATE 6795), (sym_as_pattern, STATE 7969),
    (sym_expression, STATE 9623), (sym_primary_expression, STATE 7326),
    (sym_comptime_expression, STATE 7017), (sym_transfer_expression, STATE 7017),
    (sym_not_operator, STATE 7969), (sym_boolean_operator, STATE 7969),
    (sym_binary_operator, STATE 7017), (sym_unary_operator, STATE 7017),
    (sym_comparison_operator, STATE 7969), (sym_lambda, STATE 7969),
    (sym_assignment, STATE 12425), (sym_augmented_assignment, STATE 12425),
    (sym_pattern_list, STATE 8578), (sym_yield, STATE 12425), (sym_attribute, STATE 6796),
    (sym_subscript, STATE 6797), (sym_call, STATE 6768), (sym_type, STATE 10130),
    (sym_called_type, STATE 9093), (sym_function_type, STATE 9093), (sym_splat_type, STATE 9093),
    (sym_generic_type, STATE 8287), (sym_union_type, STATE 9093),
    (sym_intersection_type, STATE 9093), (sym__intersection_operand, STATE 12294),
    (sym_constrained_type, STATE 9093), (sym_member_type, STATE 8165),
    (sym_mlir_type, STATE 7017), (sym_list, STATE 7017), (sym_set, STATE 7017),
    (sym_tuple, STATE 7017), (sym_dictionary, STATE 7017), (sym_struct_literal, STATE 7017),
    (sym_list_comprehension, STATE 7017), (sym_dictionary_comprehension, STATE 7017),
    (sym_set_comprehension, STATE 7017), (sym_generator_expression, STATE 7017),
    (sym_parenthesized_expression, STATE 7017), (sym_conditional_expression, STATE 7969),
    (sym_concatenated_string, STATE 7017), (sym_string, STATE 6729), (sym_await, STATE 7017),
    (sym_identifier, ACTIONS 327), (anon_sym_import, ACTIONS 11), (anon_sym_from, ACTIONS 13),
    (anon_sym_LPAREN, ACTIONS 329), (anon_sym_STAR, ACTIONS 331), (anon_sym_print, ACTIONS 333),
    (anon_sym_comptime, ACTIONS 335), (anon_sym_assert, ACTIONS 23),
    (anon_sym___comptime_assert, ACTIONS 25), (anon_sym_return, ACTIONS 27),
    (anon_sym_del, ACTIONS 29), (anon_sym_raise, ACTIONS 31), (anon_sym_pass, ACTIONS 33),
    (anon_sym_break, ACTIONS 35), (anon_sym_continue, ACTIONS 37), (anon_sym_match, ACTIONS 337),
    (anon_sym_async, ACTIONS 339), (anon_sym_def, ACTIONS 341), (anon_sym_LBRACK, ACTIONS 343),
    (anon_sym_LBRACE, ACTIONS 61), (anon_sym_STAR_STAR, ACTIONS 345),
    (anon_sym_global, ACTIONS 63), (anon_sym_nonlocal, ACTIONS 65), (anon_sym_exec, ACTIONS 347),
    (anon_sym_type, ACTIONS 349), (anon_sym_mut, ACTIONS 339), (anon_sym_out, ACTIONS 339),
    (anon_sym_DASH, ACTIONS 79), (anon_sym_PLUS, ACTIONS 79), (anon_sym_ref, ACTIONS 81),
    (anon_sym_var, ACTIONS 81), (anon_sym_not, ACTIONS 83), (anon_sym_TILDE, ACTIONS 79),
    (anon_sym_lambda, ACTIONS 85), (anon_sym_yield, ACTIONS 87), (sym_ellipsis, ACTIONS 89),
    (anon_sym___mlir_type, ACTIONS 91), (sym_integer, ACTIONS 93), (sym_float, ACTIONS 89),
    (anon_sym_await, ACTIONS 351), (sym_true, ACTIONS 93), (sym_false, ACTIONS 93),
    (sym_none, ACTIONS 93), (sym_comment, ACTIONS 3), (sym_line_continuation, ACTIONS 3),
    (sym__newline, ACTIONS 493), (sym__indent, ACTIONS 495), (sym_string_start, ACTIONS 97)]"

definition parse_table_965 :: "(nat \<times> nat) list" where "parse_table_965 = [
    (sym__simple_statements, STATE 4778), (sym_import_statement, STATE 12239),
    (sym_future_import_statement, STATE 12239), (sym_import_from_statement, STATE 12239),
    (sym_print_statement, STATE 12239), (sym_assert_statement, STATE 12239),
    (sym_comptime_assert_statement, STATE 12239), (sym_expression_statement, STATE 12239),
    (sym_tuple_expression, STATE 12425), (sym_named_expression, STATE 7969),
    (sym__named_expression_lhs, STATE 12752), (sym_return_statement, STATE 12239),
    (sym_delete_statement, STATE 12239), (sym_raise_statement, STATE 12239),
    (sym_pass_statement, STATE 12239), (sym_break_statement, STATE 12239),
    (sym_continue_statement, STATE 12239), (sym_global_statement, STATE 12239),
    (sym_nonlocal_statement, STATE 12239), (sym_exec_statement, STATE 12239),
    (sym_type_alias_statement, STATE 12239), (sym_parameterized_alias_statement, STATE 12239),
    (sym_pattern, STATE 8086), (sym_tuple_pattern, STATE 8101), (sym_list_pattern, STATE 8101),
    (sym_list_splat_pattern, STATE 6795), (sym_as_pattern, STATE 7969),
    (sym_expression, STATE 9623), (sym_primary_expression, STATE 7326),
    (sym_comptime_expression, STATE 7017), (sym_transfer_expression, STATE 7017),
    (sym_not_operator, STATE 7969), (sym_boolean_operator, STATE 7969),
    (sym_binary_operator, STATE 7017), (sym_unary_operator, STATE 7017),
    (sym_comparison_operator, STATE 7969), (sym_lambda, STATE 7969),
    (sym_assignment, STATE 12425), (sym_augmented_assignment, STATE 12425),
    (sym_pattern_list, STATE 8578), (sym_yield, STATE 12425), (sym_attribute, STATE 6796),
    (sym_subscript, STATE 6797), (sym_call, STATE 6768), (sym_type, STATE 10130),
    (sym_called_type, STATE 9093), (sym_function_type, STATE 9093), (sym_splat_type, STATE 9093),
    (sym_generic_type, STATE 8287), (sym_union_type, STATE 9093),
    (sym_intersection_type, STATE 9093), (sym__intersection_operand, STATE 12294),
    (sym_constrained_type, STATE 9093), (sym_member_type, STATE 8165),
    (sym_mlir_type, STATE 7017), (sym_list, STATE 7017), (sym_set, STATE 7017),
    (sym_tuple, STATE 7017), (sym_dictionary, STATE 7017), (sym_struct_literal, STATE 7017),
    (sym_list_comprehension, STATE 7017), (sym_dictionary_comprehension, STATE 7017),
    (sym_set_comprehension, STATE 7017), (sym_generator_expression, STATE 7017),
    (sym_parenthesized_expression, STATE 7017), (sym_conditional_expression, STATE 7969),
    (sym_concatenated_string, STATE 7017), (sym_string, STATE 6729), (sym_await, STATE 7017),
    (sym_identifier, ACTIONS 327), (anon_sym_import, ACTIONS 11), (anon_sym_from, ACTIONS 13),
    (anon_sym_LPAREN, ACTIONS 329), (anon_sym_STAR, ACTIONS 331), (anon_sym_print, ACTIONS 333),
    (anon_sym_comptime, ACTIONS 335), (anon_sym_assert, ACTIONS 23),
    (anon_sym___comptime_assert, ACTIONS 25), (anon_sym_return, ACTIONS 27),
    (anon_sym_del, ACTIONS 29), (anon_sym_raise, ACTIONS 31), (anon_sym_pass, ACTIONS 33),
    (anon_sym_break, ACTIONS 35), (anon_sym_continue, ACTIONS 37), (anon_sym_match, ACTIONS 337),
    (anon_sym_async, ACTIONS 339), (anon_sym_def, ACTIONS 341), (anon_sym_LBRACK, ACTIONS 343),
    (anon_sym_LBRACE, ACTIONS 61), (anon_sym_STAR_STAR, ACTIONS 345),
    (anon_sym_global, ACTIONS 63), (anon_sym_nonlocal, ACTIONS 65), (anon_sym_exec, ACTIONS 347),
    (anon_sym_type, ACTIONS 349), (anon_sym_mut, ACTIONS 339), (anon_sym_out, ACTIONS 339),
    (anon_sym_DASH, ACTIONS 79), (anon_sym_PLUS, ACTIONS 79), (anon_sym_ref, ACTIONS 81),
    (anon_sym_var, ACTIONS 81), (anon_sym_not, ACTIONS 83), (anon_sym_TILDE, ACTIONS 79),
    (anon_sym_lambda, ACTIONS 85), (anon_sym_yield, ACTIONS 87), (sym_ellipsis, ACTIONS 89),
    (anon_sym___mlir_type, ACTIONS 91), (sym_integer, ACTIONS 93), (sym_float, ACTIONS 89),
    (anon_sym_await, ACTIONS 351), (sym_true, ACTIONS 93), (sym_false, ACTIONS 93),
    (sym_none, ACTIONS 93), (sym_comment, ACTIONS 3), (sym_line_continuation, ACTIONS 3),
    (sym__newline, ACTIONS 497), (sym__indent, ACTIONS 499), (sym_string_start, ACTIONS 97)]"

definition parse_table_966 :: "(nat \<times> nat) list" where "parse_table_966 = [
    (sym__simple_statements, STATE 5028), (sym_import_statement, STATE 11814),
    (sym_future_import_statement, STATE 11814), (sym_import_from_statement, STATE 11814),
    (sym_print_statement, STATE 11814), (sym_assert_statement, STATE 11814),
    (sym_comptime_assert_statement, STATE 11814), (sym_expression_statement, STATE 11814),
    (sym_tuple_expression, STATE 12425), (sym_named_expression, STATE 7969),
    (sym__named_expression_lhs, STATE 12752), (sym_return_statement, STATE 11814),
    (sym_delete_statement, STATE 11814), (sym_raise_statement, STATE 11814),
    (sym_pass_statement, STATE 11814), (sym_break_statement, STATE 11814),
    (sym_continue_statement, STATE 11814), (sym_global_statement, STATE 11814),
    (sym_nonlocal_statement, STATE 11814), (sym_exec_statement, STATE 11814),
    (sym_type_alias_statement, STATE 11814), (sym_parameterized_alias_statement, STATE 11814),
    (sym_pattern, STATE 8086), (sym_tuple_pattern, STATE 8101), (sym_list_pattern, STATE 8101),
    (sym_list_splat_pattern, STATE 6795), (sym_as_pattern, STATE 7969),
    (sym_expression, STATE 9623), (sym_primary_expression, STATE 7326),
    (sym_comptime_expression, STATE 7017), (sym_transfer_expression, STATE 7017),
    (sym_not_operator, STATE 7969), (sym_boolean_operator, STATE 7969),
    (sym_binary_operator, STATE 7017), (sym_unary_operator, STATE 7017),
    (sym_comparison_operator, STATE 7969), (sym_lambda, STATE 7969),
    (sym_assignment, STATE 12425), (sym_augmented_assignment, STATE 12425),
    (sym_pattern_list, STATE 8578), (sym_yield, STATE 12425), (sym_attribute, STATE 6796),
    (sym_subscript, STATE 6797), (sym_call, STATE 6768), (sym_type, STATE 10130),
    (sym_called_type, STATE 9093), (sym_function_type, STATE 9093), (sym_splat_type, STATE 9093),
    (sym_generic_type, STATE 8287), (sym_union_type, STATE 9093),
    (sym_intersection_type, STATE 9093), (sym__intersection_operand, STATE 12294),
    (sym_constrained_type, STATE 9093), (sym_member_type, STATE 8165),
    (sym_mlir_type, STATE 7017), (sym_list, STATE 7017), (sym_set, STATE 7017),
    (sym_tuple, STATE 7017), (sym_dictionary, STATE 7017), (sym_struct_literal, STATE 7017),
    (sym_list_comprehension, STATE 7017), (sym_dictionary_comprehension, STATE 7017),
    (sym_set_comprehension, STATE 7017), (sym_generator_expression, STATE 7017),
    (sym_parenthesized_expression, STATE 7017), (sym_conditional_expression, STATE 7969),
    (sym_concatenated_string, STATE 7017), (sym_string, STATE 6729), (sym_await, STATE 7017),
    (sym_identifier, ACTIONS 327), (anon_sym_import, ACTIONS 11), (anon_sym_from, ACTIONS 13),
    (anon_sym_LPAREN, ACTIONS 329), (anon_sym_STAR, ACTIONS 331), (anon_sym_print, ACTIONS 333),
    (anon_sym_comptime, ACTIONS 335), (anon_sym_assert, ACTIONS 23),
    (anon_sym___comptime_assert, ACTIONS 25), (anon_sym_return, ACTIONS 27),
    (anon_sym_del, ACTIONS 29), (anon_sym_raise, ACTIONS 31), (anon_sym_pass, ACTIONS 33),
    (anon_sym_break, ACTIONS 35), (anon_sym_continue, ACTIONS 37), (anon_sym_match, ACTIONS 337),
    (anon_sym_async, ACTIONS 339), (anon_sym_def, ACTIONS 341), (anon_sym_LBRACK, ACTIONS 343),
    (anon_sym_LBRACE, ACTIONS 61), (anon_sym_STAR_STAR, ACTIONS 345),
    (anon_sym_global, ACTIONS 63), (anon_sym_nonlocal, ACTIONS 65), (anon_sym_exec, ACTIONS 347),
    (anon_sym_type, ACTIONS 349), (anon_sym_mut, ACTIONS 339), (anon_sym_out, ACTIONS 339),
    (anon_sym_DASH, ACTIONS 79), (anon_sym_PLUS, ACTIONS 79), (anon_sym_ref, ACTIONS 81),
    (anon_sym_var, ACTIONS 81), (anon_sym_not, ACTIONS 83), (anon_sym_TILDE, ACTIONS 79),
    (anon_sym_lambda, ACTIONS 85), (anon_sym_yield, ACTIONS 87), (sym_ellipsis, ACTIONS 89),
    (anon_sym___mlir_type, ACTIONS 91), (sym_integer, ACTIONS 93), (sym_float, ACTIONS 89),
    (anon_sym_await, ACTIONS 351), (sym_true, ACTIONS 93), (sym_false, ACTIONS 93),
    (sym_none, ACTIONS 93), (sym_comment, ACTIONS 3), (sym_line_continuation, ACTIONS 3),
    (sym__newline, ACTIONS 501), (sym__indent, ACTIONS 503), (sym_string_start, ACTIONS 97)]"

definition parse_table_967 :: "(nat \<times> nat) list" where "parse_table_967 = [
    (sym__simple_statements, STATE 5021), (sym_import_statement, STATE 12239),
    (sym_future_import_statement, STATE 12239), (sym_import_from_statement, STATE 12239),
    (sym_print_statement, STATE 12239), (sym_assert_statement, STATE 12239),
    (sym_comptime_assert_statement, STATE 12239), (sym_expression_statement, STATE 12239),
    (sym_tuple_expression, STATE 12425), (sym_named_expression, STATE 7969),
    (sym__named_expression_lhs, STATE 12752), (sym_return_statement, STATE 12239),
    (sym_delete_statement, STATE 12239), (sym_raise_statement, STATE 12239),
    (sym_pass_statement, STATE 12239), (sym_break_statement, STATE 12239),
    (sym_continue_statement, STATE 12239), (sym_global_statement, STATE 12239),
    (sym_nonlocal_statement, STATE 12239), (sym_exec_statement, STATE 12239),
    (sym_type_alias_statement, STATE 12239), (sym_parameterized_alias_statement, STATE 12239),
    (sym_pattern, STATE 8086), (sym_tuple_pattern, STATE 8101), (sym_list_pattern, STATE 8101),
    (sym_list_splat_pattern, STATE 6795), (sym_as_pattern, STATE 7969),
    (sym_expression, STATE 9623), (sym_primary_expression, STATE 7326),
    (sym_comptime_expression, STATE 7017), (sym_transfer_expression, STATE 7017),
    (sym_not_operator, STATE 7969), (sym_boolean_operator, STATE 7969),
    (sym_binary_operator, STATE 7017), (sym_unary_operator, STATE 7017),
    (sym_comparison_operator, STATE 7969), (sym_lambda, STATE 7969),
    (sym_assignment, STATE 12425), (sym_augmented_assignment, STATE 12425),
    (sym_pattern_list, STATE 8578), (sym_yield, STATE 12425), (sym_attribute, STATE 6796),
    (sym_subscript, STATE 6797), (sym_call, STATE 6768), (sym_type, STATE 10130),
    (sym_called_type, STATE 9093), (sym_function_type, STATE 9093), (sym_splat_type, STATE 9093),
    (sym_generic_type, STATE 8287), (sym_union_type, STATE 9093),
    (sym_intersection_type, STATE 9093), (sym__intersection_operand, STATE 12294),
    (sym_constrained_type, STATE 9093), (sym_member_type, STATE 8165),
    (sym_mlir_type, STATE 7017), (sym_list, STATE 7017), (sym_set, STATE 7017),
    (sym_tuple, STATE 7017), (sym_dictionary, STATE 7017), (sym_struct_literal, STATE 7017),
    (sym_list_comprehension, STATE 7017), (sym_dictionary_comprehension, STATE 7017),
    (sym_set_comprehension, STATE 7017), (sym_generator_expression, STATE 7017),
    (sym_parenthesized_expression, STATE 7017), (sym_conditional_expression, STATE 7969),
    (sym_concatenated_string, STATE 7017), (sym_string, STATE 6729), (sym_await, STATE 7017),
    (sym_identifier, ACTIONS 327), (anon_sym_import, ACTIONS 11), (anon_sym_from, ACTIONS 13),
    (anon_sym_LPAREN, ACTIONS 329), (anon_sym_STAR, ACTIONS 331), (anon_sym_print, ACTIONS 333),
    (anon_sym_comptime, ACTIONS 335), (anon_sym_assert, ACTIONS 23),
    (anon_sym___comptime_assert, ACTIONS 25), (anon_sym_return, ACTIONS 27),
    (anon_sym_del, ACTIONS 29), (anon_sym_raise, ACTIONS 31), (anon_sym_pass, ACTIONS 33),
    (anon_sym_break, ACTIONS 35), (anon_sym_continue, ACTIONS 37), (anon_sym_match, ACTIONS 337),
    (anon_sym_async, ACTIONS 339), (anon_sym_def, ACTIONS 341), (anon_sym_LBRACK, ACTIONS 343),
    (anon_sym_LBRACE, ACTIONS 61), (anon_sym_STAR_STAR, ACTIONS 345),
    (anon_sym_global, ACTIONS 63), (anon_sym_nonlocal, ACTIONS 65), (anon_sym_exec, ACTIONS 347),
    (anon_sym_type, ACTIONS 349), (anon_sym_mut, ACTIONS 339), (anon_sym_out, ACTIONS 339),
    (anon_sym_DASH, ACTIONS 79), (anon_sym_PLUS, ACTIONS 79), (anon_sym_ref, ACTIONS 81),
    (anon_sym_var, ACTIONS 81), (anon_sym_not, ACTIONS 83), (anon_sym_TILDE, ACTIONS 79),
    (anon_sym_lambda, ACTIONS 85), (anon_sym_yield, ACTIONS 87), (sym_ellipsis, ACTIONS 89),
    (anon_sym___mlir_type, ACTIONS 91), (sym_integer, ACTIONS 93), (sym_float, ACTIONS 89),
    (anon_sym_await, ACTIONS 351), (sym_true, ACTIONS 93), (sym_false, ACTIONS 93),
    (sym_none, ACTIONS 93), (sym_comment, ACTIONS 3), (sym_line_continuation, ACTIONS 3),
    (sym__newline, ACTIONS 505), (sym__indent, ACTIONS 507), (sym_string_start, ACTIONS 97)]"

definition parse_table_968 :: "(nat \<times> nat) list" where "parse_table_968 = [
    (sym__simple_statements, STATE 5265), (sym_import_statement, STATE 12239),
    (sym_future_import_statement, STATE 12239), (sym_import_from_statement, STATE 12239),
    (sym_print_statement, STATE 12239), (sym_assert_statement, STATE 12239),
    (sym_comptime_assert_statement, STATE 12239), (sym_expression_statement, STATE 12239),
    (sym_tuple_expression, STATE 12425), (sym_named_expression, STATE 7969),
    (sym__named_expression_lhs, STATE 12752), (sym_return_statement, STATE 12239),
    (sym_delete_statement, STATE 12239), (sym_raise_statement, STATE 12239),
    (sym_pass_statement, STATE 12239), (sym_break_statement, STATE 12239),
    (sym_continue_statement, STATE 12239), (sym_global_statement, STATE 12239),
    (sym_nonlocal_statement, STATE 12239), (sym_exec_statement, STATE 12239),
    (sym_type_alias_statement, STATE 12239), (sym_parameterized_alias_statement, STATE 12239),
    (sym_pattern, STATE 8086), (sym_tuple_pattern, STATE 8101), (sym_list_pattern, STATE 8101),
    (sym_list_splat_pattern, STATE 6795), (sym_as_pattern, STATE 7969),
    (sym_expression, STATE 9623), (sym_primary_expression, STATE 7326),
    (sym_comptime_expression, STATE 7017), (sym_transfer_expression, STATE 7017),
    (sym_not_operator, STATE 7969), (sym_boolean_operator, STATE 7969),
    (sym_binary_operator, STATE 7017), (sym_unary_operator, STATE 7017),
    (sym_comparison_operator, STATE 7969), (sym_lambda, STATE 7969),
    (sym_assignment, STATE 12425), (sym_augmented_assignment, STATE 12425),
    (sym_pattern_list, STATE 8578), (sym_yield, STATE 12425), (sym_attribute, STATE 6796),
    (sym_subscript, STATE 6797), (sym_call, STATE 6768), (sym_type, STATE 10130),
    (sym_called_type, STATE 9093), (sym_function_type, STATE 9093), (sym_splat_type, STATE 9093),
    (sym_generic_type, STATE 8287), (sym_union_type, STATE 9093),
    (sym_intersection_type, STATE 9093), (sym__intersection_operand, STATE 12294),
    (sym_constrained_type, STATE 9093), (sym_member_type, STATE 8165),
    (sym_mlir_type, STATE 7017), (sym_list, STATE 7017), (sym_set, STATE 7017),
    (sym_tuple, STATE 7017), (sym_dictionary, STATE 7017), (sym_struct_literal, STATE 7017),
    (sym_list_comprehension, STATE 7017), (sym_dictionary_comprehension, STATE 7017),
    (sym_set_comprehension, STATE 7017), (sym_generator_expression, STATE 7017),
    (sym_parenthesized_expression, STATE 7017), (sym_conditional_expression, STATE 7969),
    (sym_concatenated_string, STATE 7017), (sym_string, STATE 6729), (sym_await, STATE 7017),
    (sym_identifier, ACTIONS 327), (anon_sym_import, ACTIONS 11), (anon_sym_from, ACTIONS 13),
    (anon_sym_LPAREN, ACTIONS 329), (anon_sym_STAR, ACTIONS 331), (anon_sym_print, ACTIONS 333),
    (anon_sym_comptime, ACTIONS 335), (anon_sym_assert, ACTIONS 23),
    (anon_sym___comptime_assert, ACTIONS 25), (anon_sym_return, ACTIONS 27),
    (anon_sym_del, ACTIONS 29), (anon_sym_raise, ACTIONS 31), (anon_sym_pass, ACTIONS 33),
    (anon_sym_break, ACTIONS 35), (anon_sym_continue, ACTIONS 37), (anon_sym_match, ACTIONS 337),
    (anon_sym_async, ACTIONS 339), (anon_sym_def, ACTIONS 341), (anon_sym_LBRACK, ACTIONS 343),
    (anon_sym_LBRACE, ACTIONS 61), (anon_sym_STAR_STAR, ACTIONS 345),
    (anon_sym_global, ACTIONS 63), (anon_sym_nonlocal, ACTIONS 65), (anon_sym_exec, ACTIONS 347),
    (anon_sym_type, ACTIONS 349), (anon_sym_mut, ACTIONS 339), (anon_sym_out, ACTIONS 339),
    (anon_sym_DASH, ACTIONS 79), (anon_sym_PLUS, ACTIONS 79), (anon_sym_ref, ACTIONS 81),
    (anon_sym_var, ACTIONS 81), (anon_sym_not, ACTIONS 83), (anon_sym_TILDE, ACTIONS 79),
    (anon_sym_lambda, ACTIONS 85), (anon_sym_yield, ACTIONS 87), (sym_ellipsis, ACTIONS 89),
    (anon_sym___mlir_type, ACTIONS 91), (sym_integer, ACTIONS 93), (sym_float, ACTIONS 89),
    (anon_sym_await, ACTIONS 351), (sym_true, ACTIONS 93), (sym_false, ACTIONS 93),
    (sym_none, ACTIONS 93), (sym_comment, ACTIONS 3), (sym_line_continuation, ACTIONS 3),
    (sym__newline, ACTIONS 509), (sym__indent, ACTIONS 511), (sym_string_start, ACTIONS 97)]"

definition parse_table_969 :: "(nat \<times> nat) list" where "parse_table_969 = [
    (sym__simple_statements, STATE 4676), (sym_import_statement, STATE 12239),
    (sym_future_import_statement, STATE 12239), (sym_import_from_statement, STATE 12239),
    (sym_print_statement, STATE 12239), (sym_assert_statement, STATE 12239),
    (sym_comptime_assert_statement, STATE 12239), (sym_expression_statement, STATE 12239),
    (sym_tuple_expression, STATE 12425), (sym_named_expression, STATE 7969),
    (sym__named_expression_lhs, STATE 12752), (sym_return_statement, STATE 12239),
    (sym_delete_statement, STATE 12239), (sym_raise_statement, STATE 12239),
    (sym_pass_statement, STATE 12239), (sym_break_statement, STATE 12239),
    (sym_continue_statement, STATE 12239), (sym_global_statement, STATE 12239),
    (sym_nonlocal_statement, STATE 12239), (sym_exec_statement, STATE 12239),
    (sym_type_alias_statement, STATE 12239), (sym_parameterized_alias_statement, STATE 12239),
    (sym_pattern, STATE 8086), (sym_tuple_pattern, STATE 8101), (sym_list_pattern, STATE 8101),
    (sym_list_splat_pattern, STATE 6795), (sym_as_pattern, STATE 7969),
    (sym_expression, STATE 9623), (sym_primary_expression, STATE 7326),
    (sym_comptime_expression, STATE 7017), (sym_transfer_expression, STATE 7017),
    (sym_not_operator, STATE 7969), (sym_boolean_operator, STATE 7969),
    (sym_binary_operator, STATE 7017), (sym_unary_operator, STATE 7017),
    (sym_comparison_operator, STATE 7969), (sym_lambda, STATE 7969),
    (sym_assignment, STATE 12425), (sym_augmented_assignment, STATE 12425),
    (sym_pattern_list, STATE 8578), (sym_yield, STATE 12425), (sym_attribute, STATE 6796),
    (sym_subscript, STATE 6797), (sym_call, STATE 6768), (sym_type, STATE 10130),
    (sym_called_type, STATE 9093), (sym_function_type, STATE 9093), (sym_splat_type, STATE 9093),
    (sym_generic_type, STATE 8287), (sym_union_type, STATE 9093),
    (sym_intersection_type, STATE 9093), (sym__intersection_operand, STATE 12294),
    (sym_constrained_type, STATE 9093), (sym_member_type, STATE 8165),
    (sym_mlir_type, STATE 7017), (sym_list, STATE 7017), (sym_set, STATE 7017),
    (sym_tuple, STATE 7017), (sym_dictionary, STATE 7017), (sym_struct_literal, STATE 7017),
    (sym_list_comprehension, STATE 7017), (sym_dictionary_comprehension, STATE 7017),
    (sym_set_comprehension, STATE 7017), (sym_generator_expression, STATE 7017),
    (sym_parenthesized_expression, STATE 7017), (sym_conditional_expression, STATE 7969),
    (sym_concatenated_string, STATE 7017), (sym_string, STATE 6729), (sym_await, STATE 7017),
    (sym_identifier, ACTIONS 327), (anon_sym_import, ACTIONS 11), (anon_sym_from, ACTIONS 13),
    (anon_sym_LPAREN, ACTIONS 329), (anon_sym_STAR, ACTIONS 331), (anon_sym_print, ACTIONS 333),
    (anon_sym_comptime, ACTIONS 335), (anon_sym_assert, ACTIONS 23),
    (anon_sym___comptime_assert, ACTIONS 25), (anon_sym_return, ACTIONS 27),
    (anon_sym_del, ACTIONS 29), (anon_sym_raise, ACTIONS 31), (anon_sym_pass, ACTIONS 33),
    (anon_sym_break, ACTIONS 35), (anon_sym_continue, ACTIONS 37), (anon_sym_match, ACTIONS 337),
    (anon_sym_async, ACTIONS 339), (anon_sym_def, ACTIONS 341), (anon_sym_LBRACK, ACTIONS 343),
    (anon_sym_LBRACE, ACTIONS 61), (anon_sym_STAR_STAR, ACTIONS 345),
    (anon_sym_global, ACTIONS 63), (anon_sym_nonlocal, ACTIONS 65), (anon_sym_exec, ACTIONS 347),
    (anon_sym_type, ACTIONS 349), (anon_sym_mut, ACTIONS 339), (anon_sym_out, ACTIONS 339),
    (anon_sym_DASH, ACTIONS 79), (anon_sym_PLUS, ACTIONS 79), (anon_sym_ref, ACTIONS 81),
    (anon_sym_var, ACTIONS 81), (anon_sym_not, ACTIONS 83), (anon_sym_TILDE, ACTIONS 79),
    (anon_sym_lambda, ACTIONS 85), (anon_sym_yield, ACTIONS 87), (sym_ellipsis, ACTIONS 89),
    (anon_sym___mlir_type, ACTIONS 91), (sym_integer, ACTIONS 93), (sym_float, ACTIONS 89),
    (anon_sym_await, ACTIONS 351), (sym_true, ACTIONS 93), (sym_false, ACTIONS 93),
    (sym_none, ACTIONS 93), (sym_comment, ACTIONS 3), (sym_line_continuation, ACTIONS 3),
    (sym__newline, ACTIONS 513), (sym__indent, ACTIONS 515), (sym_string_start, ACTIONS 97)]"

definition parse_table_970 :: "(nat \<times> nat) list" where "parse_table_970 = [
    (sym__simple_statements, STATE 6212), (sym_import_statement, STATE 11814),
    (sym_future_import_statement, STATE 11814), (sym_import_from_statement, STATE 11814),
    (sym_print_statement, STATE 11814), (sym_assert_statement, STATE 11814),
    (sym_comptime_assert_statement, STATE 11814), (sym_expression_statement, STATE 11814),
    (sym_tuple_expression, STATE 12425), (sym_named_expression, STATE 7969),
    (sym__named_expression_lhs, STATE 12752), (sym_return_statement, STATE 11814),
    (sym_delete_statement, STATE 11814), (sym_raise_statement, STATE 11814),
    (sym_pass_statement, STATE 11814), (sym_break_statement, STATE 11814),
    (sym_continue_statement, STATE 11814), (sym_global_statement, STATE 11814),
    (sym_nonlocal_statement, STATE 11814), (sym_exec_statement, STATE 11814),
    (sym_type_alias_statement, STATE 11814), (sym_parameterized_alias_statement, STATE 11814),
    (sym_pattern, STATE 8086), (sym_tuple_pattern, STATE 8101), (sym_list_pattern, STATE 8101),
    (sym_list_splat_pattern, STATE 6795), (sym_as_pattern, STATE 7969),
    (sym_expression, STATE 9623), (sym_primary_expression, STATE 7326),
    (sym_comptime_expression, STATE 7017), (sym_transfer_expression, STATE 7017),
    (sym_not_operator, STATE 7969), (sym_boolean_operator, STATE 7969),
    (sym_binary_operator, STATE 7017), (sym_unary_operator, STATE 7017),
    (sym_comparison_operator, STATE 7969), (sym_lambda, STATE 7969),
    (sym_assignment, STATE 12425), (sym_augmented_assignment, STATE 12425),
    (sym_pattern_list, STATE 8578), (sym_yield, STATE 12425), (sym_attribute, STATE 6796),
    (sym_subscript, STATE 6797), (sym_call, STATE 6768), (sym_type, STATE 10130),
    (sym_called_type, STATE 9093), (sym_function_type, STATE 9093), (sym_splat_type, STATE 9093),
    (sym_generic_type, STATE 8287), (sym_union_type, STATE 9093),
    (sym_intersection_type, STATE 9093), (sym__intersection_operand, STATE 12294),
    (sym_constrained_type, STATE 9093), (sym_member_type, STATE 8165),
    (sym_mlir_type, STATE 7017), (sym_list, STATE 7017), (sym_set, STATE 7017),
    (sym_tuple, STATE 7017), (sym_dictionary, STATE 7017), (sym_struct_literal, STATE 7017),
    (sym_list_comprehension, STATE 7017), (sym_dictionary_comprehension, STATE 7017),
    (sym_set_comprehension, STATE 7017), (sym_generator_expression, STATE 7017),
    (sym_parenthesized_expression, STATE 7017), (sym_conditional_expression, STATE 7969),
    (sym_concatenated_string, STATE 7017), (sym_string, STATE 6729), (sym_await, STATE 7017),
    (sym_identifier, ACTIONS 327), (anon_sym_import, ACTIONS 11), (anon_sym_from, ACTIONS 13),
    (anon_sym_LPAREN, ACTIONS 329), (anon_sym_STAR, ACTIONS 331), (anon_sym_print, ACTIONS 333),
    (anon_sym_comptime, ACTIONS 335), (anon_sym_assert, ACTIONS 23),
    (anon_sym___comptime_assert, ACTIONS 25), (anon_sym_return, ACTIONS 27),
    (anon_sym_del, ACTIONS 29), (anon_sym_raise, ACTIONS 31), (anon_sym_pass, ACTIONS 33),
    (anon_sym_break, ACTIONS 35), (anon_sym_continue, ACTIONS 37), (anon_sym_match, ACTIONS 337),
    (anon_sym_async, ACTIONS 339), (anon_sym_def, ACTIONS 341), (anon_sym_LBRACK, ACTIONS 343),
    (anon_sym_LBRACE, ACTIONS 61), (anon_sym_STAR_STAR, ACTIONS 345),
    (anon_sym_global, ACTIONS 63), (anon_sym_nonlocal, ACTIONS 65), (anon_sym_exec, ACTIONS 347),
    (anon_sym_type, ACTIONS 349), (anon_sym_mut, ACTIONS 339), (anon_sym_out, ACTIONS 339),
    (anon_sym_DASH, ACTIONS 79), (anon_sym_PLUS, ACTIONS 79), (anon_sym_ref, ACTIONS 81),
    (anon_sym_var, ACTIONS 81), (anon_sym_not, ACTIONS 83), (anon_sym_TILDE, ACTIONS 79),
    (anon_sym_lambda, ACTIONS 85), (anon_sym_yield, ACTIONS 87), (sym_ellipsis, ACTIONS 89),
    (anon_sym___mlir_type, ACTIONS 91), (sym_integer, ACTIONS 93), (sym_float, ACTIONS 89),
    (anon_sym_await, ACTIONS 351), (sym_true, ACTIONS 93), (sym_false, ACTIONS 93),
    (sym_none, ACTIONS 93), (sym_comment, ACTIONS 3), (sym_line_continuation, ACTIONS 3),
    (sym__newline, ACTIONS 517), (sym__indent, ACTIONS 519), (sym_string_start, ACTIONS 97)]"

definition parse_table_971 :: "(nat \<times> nat) list" where "parse_table_971 = [
    (sym__simple_statements, STATE 6595), (sym_import_statement, STATE 12239),
    (sym_future_import_statement, STATE 12239), (sym_import_from_statement, STATE 12239),
    (sym_print_statement, STATE 12239), (sym_assert_statement, STATE 12239),
    (sym_comptime_assert_statement, STATE 12239), (sym_expression_statement, STATE 12239),
    (sym_tuple_expression, STATE 12425), (sym_named_expression, STATE 7969),
    (sym__named_expression_lhs, STATE 12752), (sym_return_statement, STATE 12239),
    (sym_delete_statement, STATE 12239), (sym_raise_statement, STATE 12239),
    (sym_pass_statement, STATE 12239), (sym_break_statement, STATE 12239),
    (sym_continue_statement, STATE 12239), (sym_global_statement, STATE 12239),
    (sym_nonlocal_statement, STATE 12239), (sym_exec_statement, STATE 12239),
    (sym_type_alias_statement, STATE 12239), (sym_parameterized_alias_statement, STATE 12239),
    (sym_pattern, STATE 8086), (sym_tuple_pattern, STATE 8101), (sym_list_pattern, STATE 8101),
    (sym_list_splat_pattern, STATE 6795), (sym_as_pattern, STATE 7969),
    (sym_expression, STATE 9623), (sym_primary_expression, STATE 7326),
    (sym_comptime_expression, STATE 7017), (sym_transfer_expression, STATE 7017),
    (sym_not_operator, STATE 7969), (sym_boolean_operator, STATE 7969),
    (sym_binary_operator, STATE 7017), (sym_unary_operator, STATE 7017),
    (sym_comparison_operator, STATE 7969), (sym_lambda, STATE 7969),
    (sym_assignment, STATE 12425), (sym_augmented_assignment, STATE 12425),
    (sym_pattern_list, STATE 8578), (sym_yield, STATE 12425), (sym_attribute, STATE 6796),
    (sym_subscript, STATE 6797), (sym_call, STATE 6768), (sym_type, STATE 10130),
    (sym_called_type, STATE 9093), (sym_function_type, STATE 9093), (sym_splat_type, STATE 9093),
    (sym_generic_type, STATE 8287), (sym_union_type, STATE 9093),
    (sym_intersection_type, STATE 9093), (sym__intersection_operand, STATE 12294),
    (sym_constrained_type, STATE 9093), (sym_member_type, STATE 8165),
    (sym_mlir_type, STATE 7017), (sym_list, STATE 7017), (sym_set, STATE 7017),
    (sym_tuple, STATE 7017), (sym_dictionary, STATE 7017), (sym_struct_literal, STATE 7017),
    (sym_list_comprehension, STATE 7017), (sym_dictionary_comprehension, STATE 7017),
    (sym_set_comprehension, STATE 7017), (sym_generator_expression, STATE 7017),
    (sym_parenthesized_expression, STATE 7017), (sym_conditional_expression, STATE 7969),
    (sym_concatenated_string, STATE 7017), (sym_string, STATE 6729), (sym_await, STATE 7017),
    (sym_identifier, ACTIONS 327), (anon_sym_import, ACTIONS 11), (anon_sym_from, ACTIONS 13),
    (anon_sym_LPAREN, ACTIONS 329), (anon_sym_STAR, ACTIONS 331), (anon_sym_print, ACTIONS 333),
    (anon_sym_comptime, ACTIONS 335), (anon_sym_assert, ACTIONS 23),
    (anon_sym___comptime_assert, ACTIONS 25), (anon_sym_return, ACTIONS 27),
    (anon_sym_del, ACTIONS 29), (anon_sym_raise, ACTIONS 31), (anon_sym_pass, ACTIONS 33),
    (anon_sym_break, ACTIONS 35), (anon_sym_continue, ACTIONS 37), (anon_sym_match, ACTIONS 337),
    (anon_sym_async, ACTIONS 339), (anon_sym_def, ACTIONS 341), (anon_sym_LBRACK, ACTIONS 343),
    (anon_sym_LBRACE, ACTIONS 61), (anon_sym_STAR_STAR, ACTIONS 345),
    (anon_sym_global, ACTIONS 63), (anon_sym_nonlocal, ACTIONS 65), (anon_sym_exec, ACTIONS 347),
    (anon_sym_type, ACTIONS 349), (anon_sym_mut, ACTIONS 339), (anon_sym_out, ACTIONS 339),
    (anon_sym_DASH, ACTIONS 79), (anon_sym_PLUS, ACTIONS 79), (anon_sym_ref, ACTIONS 81),
    (anon_sym_var, ACTIONS 81), (anon_sym_not, ACTIONS 83), (anon_sym_TILDE, ACTIONS 79),
    (anon_sym_lambda, ACTIONS 85), (anon_sym_yield, ACTIONS 87), (sym_ellipsis, ACTIONS 89),
    (anon_sym___mlir_type, ACTIONS 91), (sym_integer, ACTIONS 93), (sym_float, ACTIONS 89),
    (anon_sym_await, ACTIONS 351), (sym_true, ACTIONS 93), (sym_false, ACTIONS 93),
    (sym_none, ACTIONS 93), (sym_comment, ACTIONS 3), (sym_line_continuation, ACTIONS 3),
    (sym__newline, ACTIONS 521), (sym__indent, ACTIONS 523), (sym_string_start, ACTIONS 97)]"

definition parse_table_972 :: "(nat \<times> nat) list" where "parse_table_972 = [
    (sym__simple_statements, STATE 6223), (sym_import_statement, STATE 11814),
    (sym_future_import_statement, STATE 11814), (sym_import_from_statement, STATE 11814),
    (sym_print_statement, STATE 11814), (sym_assert_statement, STATE 11814),
    (sym_comptime_assert_statement, STATE 11814), (sym_expression_statement, STATE 11814),
    (sym_tuple_expression, STATE 12425), (sym_named_expression, STATE 7969),
    (sym__named_expression_lhs, STATE 12752), (sym_return_statement, STATE 11814),
    (sym_delete_statement, STATE 11814), (sym_raise_statement, STATE 11814),
    (sym_pass_statement, STATE 11814), (sym_break_statement, STATE 11814),
    (sym_continue_statement, STATE 11814), (sym_global_statement, STATE 11814),
    (sym_nonlocal_statement, STATE 11814), (sym_exec_statement, STATE 11814),
    (sym_type_alias_statement, STATE 11814), (sym_parameterized_alias_statement, STATE 11814),
    (sym_pattern, STATE 8086), (sym_tuple_pattern, STATE 8101), (sym_list_pattern, STATE 8101),
    (sym_list_splat_pattern, STATE 6795), (sym_as_pattern, STATE 7969),
    (sym_expression, STATE 9623), (sym_primary_expression, STATE 7326),
    (sym_comptime_expression, STATE 7017), (sym_transfer_expression, STATE 7017),
    (sym_not_operator, STATE 7969), (sym_boolean_operator, STATE 7969),
    (sym_binary_operator, STATE 7017), (sym_unary_operator, STATE 7017),
    (sym_comparison_operator, STATE 7969), (sym_lambda, STATE 7969),
    (sym_assignment, STATE 12425), (sym_augmented_assignment, STATE 12425),
    (sym_pattern_list, STATE 8578), (sym_yield, STATE 12425), (sym_attribute, STATE 6796),
    (sym_subscript, STATE 6797), (sym_call, STATE 6768), (sym_type, STATE 10130),
    (sym_called_type, STATE 9093), (sym_function_type, STATE 9093), (sym_splat_type, STATE 9093),
    (sym_generic_type, STATE 8287), (sym_union_type, STATE 9093),
    (sym_intersection_type, STATE 9093), (sym__intersection_operand, STATE 12294),
    (sym_constrained_type, STATE 9093), (sym_member_type, STATE 8165),
    (sym_mlir_type, STATE 7017), (sym_list, STATE 7017), (sym_set, STATE 7017),
    (sym_tuple, STATE 7017), (sym_dictionary, STATE 7017), (sym_struct_literal, STATE 7017),
    (sym_list_comprehension, STATE 7017), (sym_dictionary_comprehension, STATE 7017),
    (sym_set_comprehension, STATE 7017), (sym_generator_expression, STATE 7017),
    (sym_parenthesized_expression, STATE 7017), (sym_conditional_expression, STATE 7969),
    (sym_concatenated_string, STATE 7017), (sym_string, STATE 6729), (sym_await, STATE 7017),
    (sym_identifier, ACTIONS 327), (anon_sym_import, ACTIONS 11), (anon_sym_from, ACTIONS 13),
    (anon_sym_LPAREN, ACTIONS 329), (anon_sym_STAR, ACTIONS 331), (anon_sym_print, ACTIONS 333),
    (anon_sym_comptime, ACTIONS 335), (anon_sym_assert, ACTIONS 23),
    (anon_sym___comptime_assert, ACTIONS 25), (anon_sym_return, ACTIONS 27),
    (anon_sym_del, ACTIONS 29), (anon_sym_raise, ACTIONS 31), (anon_sym_pass, ACTIONS 33),
    (anon_sym_break, ACTIONS 35), (anon_sym_continue, ACTIONS 37), (anon_sym_match, ACTIONS 337),
    (anon_sym_async, ACTIONS 339), (anon_sym_def, ACTIONS 341), (anon_sym_LBRACK, ACTIONS 343),
    (anon_sym_LBRACE, ACTIONS 61), (anon_sym_STAR_STAR, ACTIONS 345),
    (anon_sym_global, ACTIONS 63), (anon_sym_nonlocal, ACTIONS 65), (anon_sym_exec, ACTIONS 347),
    (anon_sym_type, ACTIONS 349), (anon_sym_mut, ACTIONS 339), (anon_sym_out, ACTIONS 339),
    (anon_sym_DASH, ACTIONS 79), (anon_sym_PLUS, ACTIONS 79), (anon_sym_ref, ACTIONS 81),
    (anon_sym_var, ACTIONS 81), (anon_sym_not, ACTIONS 83), (anon_sym_TILDE, ACTIONS 79),
    (anon_sym_lambda, ACTIONS 85), (anon_sym_yield, ACTIONS 87), (sym_ellipsis, ACTIONS 89),
    (anon_sym___mlir_type, ACTIONS 91), (sym_integer, ACTIONS 93), (sym_float, ACTIONS 89),
    (anon_sym_await, ACTIONS 351), (sym_true, ACTIONS 93), (sym_false, ACTIONS 93),
    (sym_none, ACTIONS 93), (sym_comment, ACTIONS 3), (sym_line_continuation, ACTIONS 3),
    (sym__newline, ACTIONS 525), (sym__indent, ACTIONS 527), (sym_string_start, ACTIONS 97)]"

definition parse_table_973 :: "(nat \<times> nat) list" where "parse_table_973 = [
    (sym__simple_statements, STATE 6225), (sym_import_statement, STATE 11814),
    (sym_future_import_statement, STATE 11814), (sym_import_from_statement, STATE 11814),
    (sym_print_statement, STATE 11814), (sym_assert_statement, STATE 11814),
    (sym_comptime_assert_statement, STATE 11814), (sym_expression_statement, STATE 11814),
    (sym_tuple_expression, STATE 12425), (sym_named_expression, STATE 7969),
    (sym__named_expression_lhs, STATE 12752), (sym_return_statement, STATE 11814),
    (sym_delete_statement, STATE 11814), (sym_raise_statement, STATE 11814),
    (sym_pass_statement, STATE 11814), (sym_break_statement, STATE 11814),
    (sym_continue_statement, STATE 11814), (sym_global_statement, STATE 11814),
    (sym_nonlocal_statement, STATE 11814), (sym_exec_statement, STATE 11814),
    (sym_type_alias_statement, STATE 11814), (sym_parameterized_alias_statement, STATE 11814),
    (sym_pattern, STATE 8086), (sym_tuple_pattern, STATE 8101), (sym_list_pattern, STATE 8101),
    (sym_list_splat_pattern, STATE 6795), (sym_as_pattern, STATE 7969),
    (sym_expression, STATE 9623), (sym_primary_expression, STATE 7326),
    (sym_comptime_expression, STATE 7017), (sym_transfer_expression, STATE 7017),
    (sym_not_operator, STATE 7969), (sym_boolean_operator, STATE 7969),
    (sym_binary_operator, STATE 7017), (sym_unary_operator, STATE 7017),
    (sym_comparison_operator, STATE 7969), (sym_lambda, STATE 7969),
    (sym_assignment, STATE 12425), (sym_augmented_assignment, STATE 12425),
    (sym_pattern_list, STATE 8578), (sym_yield, STATE 12425), (sym_attribute, STATE 6796),
    (sym_subscript, STATE 6797), (sym_call, STATE 6768), (sym_type, STATE 10130),
    (sym_called_type, STATE 9093), (sym_function_type, STATE 9093), (sym_splat_type, STATE 9093),
    (sym_generic_type, STATE 8287), (sym_union_type, STATE 9093),
    (sym_intersection_type, STATE 9093), (sym__intersection_operand, STATE 12294),
    (sym_constrained_type, STATE 9093), (sym_member_type, STATE 8165),
    (sym_mlir_type, STATE 7017), (sym_list, STATE 7017), (sym_set, STATE 7017),
    (sym_tuple, STATE 7017), (sym_dictionary, STATE 7017), (sym_struct_literal, STATE 7017),
    (sym_list_comprehension, STATE 7017), (sym_dictionary_comprehension, STATE 7017),
    (sym_set_comprehension, STATE 7017), (sym_generator_expression, STATE 7017),
    (sym_parenthesized_expression, STATE 7017), (sym_conditional_expression, STATE 7969),
    (sym_concatenated_string, STATE 7017), (sym_string, STATE 6729), (sym_await, STATE 7017),
    (sym_identifier, ACTIONS 327), (anon_sym_import, ACTIONS 11), (anon_sym_from, ACTIONS 13),
    (anon_sym_LPAREN, ACTIONS 329), (anon_sym_STAR, ACTIONS 331), (anon_sym_print, ACTIONS 333),
    (anon_sym_comptime, ACTIONS 335), (anon_sym_assert, ACTIONS 23),
    (anon_sym___comptime_assert, ACTIONS 25), (anon_sym_return, ACTIONS 27),
    (anon_sym_del, ACTIONS 29), (anon_sym_raise, ACTIONS 31), (anon_sym_pass, ACTIONS 33),
    (anon_sym_break, ACTIONS 35), (anon_sym_continue, ACTIONS 37), (anon_sym_match, ACTIONS 337),
    (anon_sym_async, ACTIONS 339), (anon_sym_def, ACTIONS 341), (anon_sym_LBRACK, ACTIONS 343),
    (anon_sym_LBRACE, ACTIONS 61), (anon_sym_STAR_STAR, ACTIONS 345),
    (anon_sym_global, ACTIONS 63), (anon_sym_nonlocal, ACTIONS 65), (anon_sym_exec, ACTIONS 347),
    (anon_sym_type, ACTIONS 349), (anon_sym_mut, ACTIONS 339), (anon_sym_out, ACTIONS 339),
    (anon_sym_DASH, ACTIONS 79), (anon_sym_PLUS, ACTIONS 79), (anon_sym_ref, ACTIONS 81),
    (anon_sym_var, ACTIONS 81), (anon_sym_not, ACTIONS 83), (anon_sym_TILDE, ACTIONS 79),
    (anon_sym_lambda, ACTIONS 85), (anon_sym_yield, ACTIONS 87), (sym_ellipsis, ACTIONS 89),
    (anon_sym___mlir_type, ACTIONS 91), (sym_integer, ACTIONS 93), (sym_float, ACTIONS 89),
    (anon_sym_await, ACTIONS 351), (sym_true, ACTIONS 93), (sym_false, ACTIONS 93),
    (sym_none, ACTIONS 93), (sym_comment, ACTIONS 3), (sym_line_continuation, ACTIONS 3),
    (sym__newline, ACTIONS 529), (sym__indent, ACTIONS 531), (sym_string_start, ACTIONS 97)]"

definition parse_table_974 :: "(nat \<times> nat) list" where "parse_table_974 = [
    (sym__simple_statements, STATE 5034), (sym_import_statement, STATE 12239),
    (sym_future_import_statement, STATE 12239), (sym_import_from_statement, STATE 12239),
    (sym_print_statement, STATE 12239), (sym_assert_statement, STATE 12239),
    (sym_comptime_assert_statement, STATE 12239), (sym_expression_statement, STATE 12239),
    (sym_tuple_expression, STATE 12425), (sym_named_expression, STATE 7969),
    (sym__named_expression_lhs, STATE 12752), (sym_return_statement, STATE 12239),
    (sym_delete_statement, STATE 12239), (sym_raise_statement, STATE 12239),
    (sym_pass_statement, STATE 12239), (sym_break_statement, STATE 12239),
    (sym_continue_statement, STATE 12239), (sym_global_statement, STATE 12239),
    (sym_nonlocal_statement, STATE 12239), (sym_exec_statement, STATE 12239),
    (sym_type_alias_statement, STATE 12239), (sym_parameterized_alias_statement, STATE 12239),
    (sym_pattern, STATE 8086), (sym_tuple_pattern, STATE 8101), (sym_list_pattern, STATE 8101),
    (sym_list_splat_pattern, STATE 6795), (sym_as_pattern, STATE 7969),
    (sym_expression, STATE 9623), (sym_primary_expression, STATE 7326),
    (sym_comptime_expression, STATE 7017), (sym_transfer_expression, STATE 7017),
    (sym_not_operator, STATE 7969), (sym_boolean_operator, STATE 7969),
    (sym_binary_operator, STATE 7017), (sym_unary_operator, STATE 7017),
    (sym_comparison_operator, STATE 7969), (sym_lambda, STATE 7969),
    (sym_assignment, STATE 12425), (sym_augmented_assignment, STATE 12425),
    (sym_pattern_list, STATE 8578), (sym_yield, STATE 12425), (sym_attribute, STATE 6796),
    (sym_subscript, STATE 6797), (sym_call, STATE 6768), (sym_type, STATE 10130),
    (sym_called_type, STATE 9093), (sym_function_type, STATE 9093), (sym_splat_type, STATE 9093),
    (sym_generic_type, STATE 8287), (sym_union_type, STATE 9093),
    (sym_intersection_type, STATE 9093), (sym__intersection_operand, STATE 12294),
    (sym_constrained_type, STATE 9093), (sym_member_type, STATE 8165),
    (sym_mlir_type, STATE 7017), (sym_list, STATE 7017), (sym_set, STATE 7017),
    (sym_tuple, STATE 7017), (sym_dictionary, STATE 7017), (sym_struct_literal, STATE 7017),
    (sym_list_comprehension, STATE 7017), (sym_dictionary_comprehension, STATE 7017),
    (sym_set_comprehension, STATE 7017), (sym_generator_expression, STATE 7017),
    (sym_parenthesized_expression, STATE 7017), (sym_conditional_expression, STATE 7969),
    (sym_concatenated_string, STATE 7017), (sym_string, STATE 6729), (sym_await, STATE 7017),
    (sym_identifier, ACTIONS 327), (anon_sym_import, ACTIONS 11), (anon_sym_from, ACTIONS 13),
    (anon_sym_LPAREN, ACTIONS 329), (anon_sym_STAR, ACTIONS 331), (anon_sym_print, ACTIONS 333),
    (anon_sym_comptime, ACTIONS 335), (anon_sym_assert, ACTIONS 23),
    (anon_sym___comptime_assert, ACTIONS 25), (anon_sym_return, ACTIONS 27),
    (anon_sym_del, ACTIONS 29), (anon_sym_raise, ACTIONS 31), (anon_sym_pass, ACTIONS 33),
    (anon_sym_break, ACTIONS 35), (anon_sym_continue, ACTIONS 37), (anon_sym_match, ACTIONS 337),
    (anon_sym_async, ACTIONS 339), (anon_sym_def, ACTIONS 341), (anon_sym_LBRACK, ACTIONS 343),
    (anon_sym_LBRACE, ACTIONS 61), (anon_sym_STAR_STAR, ACTIONS 345),
    (anon_sym_global, ACTIONS 63), (anon_sym_nonlocal, ACTIONS 65), (anon_sym_exec, ACTIONS 347),
    (anon_sym_type, ACTIONS 349), (anon_sym_mut, ACTIONS 339), (anon_sym_out, ACTIONS 339),
    (anon_sym_DASH, ACTIONS 79), (anon_sym_PLUS, ACTIONS 79), (anon_sym_ref, ACTIONS 81),
    (anon_sym_var, ACTIONS 81), (anon_sym_not, ACTIONS 83), (anon_sym_TILDE, ACTIONS 79),
    (anon_sym_lambda, ACTIONS 85), (anon_sym_yield, ACTIONS 87), (sym_ellipsis, ACTIONS 89),
    (anon_sym___mlir_type, ACTIONS 91), (sym_integer, ACTIONS 93), (sym_float, ACTIONS 89),
    (anon_sym_await, ACTIONS 351), (sym_true, ACTIONS 93), (sym_false, ACTIONS 93),
    (sym_none, ACTIONS 93), (sym_comment, ACTIONS 3), (sym_line_continuation, ACTIONS 3),
    (sym__newline, ACTIONS 533), (sym__indent, ACTIONS 535), (sym_string_start, ACTIONS 97)]"

definition parse_table_975 :: "(nat \<times> nat) list" where "parse_table_975 = [
    (sym__simple_statements, STATE 6234), (sym_import_statement, STATE 11814),
    (sym_future_import_statement, STATE 11814), (sym_import_from_statement, STATE 11814),
    (sym_print_statement, STATE 11814), (sym_assert_statement, STATE 11814),
    (sym_comptime_assert_statement, STATE 11814), (sym_expression_statement, STATE 11814),
    (sym_tuple_expression, STATE 12425), (sym_named_expression, STATE 7969),
    (sym__named_expression_lhs, STATE 12752), (sym_return_statement, STATE 11814),
    (sym_delete_statement, STATE 11814), (sym_raise_statement, STATE 11814),
    (sym_pass_statement, STATE 11814), (sym_break_statement, STATE 11814),
    (sym_continue_statement, STATE 11814), (sym_global_statement, STATE 11814),
    (sym_nonlocal_statement, STATE 11814), (sym_exec_statement, STATE 11814),
    (sym_type_alias_statement, STATE 11814), (sym_parameterized_alias_statement, STATE 11814),
    (sym_pattern, STATE 8086), (sym_tuple_pattern, STATE 8101), (sym_list_pattern, STATE 8101),
    (sym_list_splat_pattern, STATE 6795), (sym_as_pattern, STATE 7969),
    (sym_expression, STATE 9623), (sym_primary_expression, STATE 7326),
    (sym_comptime_expression, STATE 7017), (sym_transfer_expression, STATE 7017),
    (sym_not_operator, STATE 7969), (sym_boolean_operator, STATE 7969),
    (sym_binary_operator, STATE 7017), (sym_unary_operator, STATE 7017),
    (sym_comparison_operator, STATE 7969), (sym_lambda, STATE 7969),
    (sym_assignment, STATE 12425), (sym_augmented_assignment, STATE 12425),
    (sym_pattern_list, STATE 8578), (sym_yield, STATE 12425), (sym_attribute, STATE 6796),
    (sym_subscript, STATE 6797), (sym_call, STATE 6768), (sym_type, STATE 10130),
    (sym_called_type, STATE 9093), (sym_function_type, STATE 9093), (sym_splat_type, STATE 9093),
    (sym_generic_type, STATE 8287), (sym_union_type, STATE 9093),
    (sym_intersection_type, STATE 9093), (sym__intersection_operand, STATE 12294),
    (sym_constrained_type, STATE 9093), (sym_member_type, STATE 8165),
    (sym_mlir_type, STATE 7017), (sym_list, STATE 7017), (sym_set, STATE 7017),
    (sym_tuple, STATE 7017), (sym_dictionary, STATE 7017), (sym_struct_literal, STATE 7017),
    (sym_list_comprehension, STATE 7017), (sym_dictionary_comprehension, STATE 7017),
    (sym_set_comprehension, STATE 7017), (sym_generator_expression, STATE 7017),
    (sym_parenthesized_expression, STATE 7017), (sym_conditional_expression, STATE 7969),
    (sym_concatenated_string, STATE 7017), (sym_string, STATE 6729), (sym_await, STATE 7017),
    (sym_identifier, ACTIONS 327), (anon_sym_import, ACTIONS 11), (anon_sym_from, ACTIONS 13),
    (anon_sym_LPAREN, ACTIONS 329), (anon_sym_STAR, ACTIONS 331), (anon_sym_print, ACTIONS 333),
    (anon_sym_comptime, ACTIONS 335), (anon_sym_assert, ACTIONS 23),
    (anon_sym___comptime_assert, ACTIONS 25), (anon_sym_return, ACTIONS 27),
    (anon_sym_del, ACTIONS 29), (anon_sym_raise, ACTIONS 31), (anon_sym_pass, ACTIONS 33),
    (anon_sym_break, ACTIONS 35), (anon_sym_continue, ACTIONS 37), (anon_sym_match, ACTIONS 337),
    (anon_sym_async, ACTIONS 339), (anon_sym_def, ACTIONS 341), (anon_sym_LBRACK, ACTIONS 343),
    (anon_sym_LBRACE, ACTIONS 61), (anon_sym_STAR_STAR, ACTIONS 345),
    (anon_sym_global, ACTIONS 63), (anon_sym_nonlocal, ACTIONS 65), (anon_sym_exec, ACTIONS 347),
    (anon_sym_type, ACTIONS 349), (anon_sym_mut, ACTIONS 339), (anon_sym_out, ACTIONS 339),
    (anon_sym_DASH, ACTIONS 79), (anon_sym_PLUS, ACTIONS 79), (anon_sym_ref, ACTIONS 81),
    (anon_sym_var, ACTIONS 81), (anon_sym_not, ACTIONS 83), (anon_sym_TILDE, ACTIONS 79),
    (anon_sym_lambda, ACTIONS 85), (anon_sym_yield, ACTIONS 87), (sym_ellipsis, ACTIONS 89),
    (anon_sym___mlir_type, ACTIONS 91), (sym_integer, ACTIONS 93), (sym_float, ACTIONS 89),
    (anon_sym_await, ACTIONS 351), (sym_true, ACTIONS 93), (sym_false, ACTIONS 93),
    (sym_none, ACTIONS 93), (sym_comment, ACTIONS 3), (sym_line_continuation, ACTIONS 3),
    (sym__newline, ACTIONS 537), (sym__indent, ACTIONS 539), (sym_string_start, ACTIONS 97)]"

definition parse_table_976 :: "(nat \<times> nat) list" where "parse_table_976 = [
    (sym__simple_statements, STATE 6603), (sym_import_statement, STATE 12239),
    (sym_future_import_statement, STATE 12239), (sym_import_from_statement, STATE 12239),
    (sym_print_statement, STATE 12239), (sym_assert_statement, STATE 12239),
    (sym_comptime_assert_statement, STATE 12239), (sym_expression_statement, STATE 12239),
    (sym_tuple_expression, STATE 12425), (sym_named_expression, STATE 7969),
    (sym__named_expression_lhs, STATE 12752), (sym_return_statement, STATE 12239),
    (sym_delete_statement, STATE 12239), (sym_raise_statement, STATE 12239),
    (sym_pass_statement, STATE 12239), (sym_break_statement, STATE 12239),
    (sym_continue_statement, STATE 12239), (sym_global_statement, STATE 12239),
    (sym_nonlocal_statement, STATE 12239), (sym_exec_statement, STATE 12239),
    (sym_type_alias_statement, STATE 12239), (sym_parameterized_alias_statement, STATE 12239),
    (sym_pattern, STATE 8086), (sym_tuple_pattern, STATE 8101), (sym_list_pattern, STATE 8101),
    (sym_list_splat_pattern, STATE 6795), (sym_as_pattern, STATE 7969),
    (sym_expression, STATE 9623), (sym_primary_expression, STATE 7326),
    (sym_comptime_expression, STATE 7017), (sym_transfer_expression, STATE 7017),
    (sym_not_operator, STATE 7969), (sym_boolean_operator, STATE 7969),
    (sym_binary_operator, STATE 7017), (sym_unary_operator, STATE 7017),
    (sym_comparison_operator, STATE 7969), (sym_lambda, STATE 7969),
    (sym_assignment, STATE 12425), (sym_augmented_assignment, STATE 12425),
    (sym_pattern_list, STATE 8578), (sym_yield, STATE 12425), (sym_attribute, STATE 6796),
    (sym_subscript, STATE 6797), (sym_call, STATE 6768), (sym_type, STATE 10130),
    (sym_called_type, STATE 9093), (sym_function_type, STATE 9093), (sym_splat_type, STATE 9093),
    (sym_generic_type, STATE 8287), (sym_union_type, STATE 9093),
    (sym_intersection_type, STATE 9093), (sym__intersection_operand, STATE 12294),
    (sym_constrained_type, STATE 9093), (sym_member_type, STATE 8165),
    (sym_mlir_type, STATE 7017), (sym_list, STATE 7017), (sym_set, STATE 7017),
    (sym_tuple, STATE 7017), (sym_dictionary, STATE 7017), (sym_struct_literal, STATE 7017),
    (sym_list_comprehension, STATE 7017), (sym_dictionary_comprehension, STATE 7017),
    (sym_set_comprehension, STATE 7017), (sym_generator_expression, STATE 7017),
    (sym_parenthesized_expression, STATE 7017), (sym_conditional_expression, STATE 7969),
    (sym_concatenated_string, STATE 7017), (sym_string, STATE 6729), (sym_await, STATE 7017),
    (sym_identifier, ACTIONS 327), (anon_sym_import, ACTIONS 11), (anon_sym_from, ACTIONS 13),
    (anon_sym_LPAREN, ACTIONS 329), (anon_sym_STAR, ACTIONS 331), (anon_sym_print, ACTIONS 333),
    (anon_sym_comptime, ACTIONS 335), (anon_sym_assert, ACTIONS 23),
    (anon_sym___comptime_assert, ACTIONS 25), (anon_sym_return, ACTIONS 27),
    (anon_sym_del, ACTIONS 29), (anon_sym_raise, ACTIONS 31), (anon_sym_pass, ACTIONS 33),
    (anon_sym_break, ACTIONS 35), (anon_sym_continue, ACTIONS 37), (anon_sym_match, ACTIONS 337),
    (anon_sym_async, ACTIONS 339), (anon_sym_def, ACTIONS 341), (anon_sym_LBRACK, ACTIONS 343),
    (anon_sym_LBRACE, ACTIONS 61), (anon_sym_STAR_STAR, ACTIONS 345),
    (anon_sym_global, ACTIONS 63), (anon_sym_nonlocal, ACTIONS 65), (anon_sym_exec, ACTIONS 347),
    (anon_sym_type, ACTIONS 349), (anon_sym_mut, ACTIONS 339), (anon_sym_out, ACTIONS 339),
    (anon_sym_DASH, ACTIONS 79), (anon_sym_PLUS, ACTIONS 79), (anon_sym_ref, ACTIONS 81),
    (anon_sym_var, ACTIONS 81), (anon_sym_not, ACTIONS 83), (anon_sym_TILDE, ACTIONS 79),
    (anon_sym_lambda, ACTIONS 85), (anon_sym_yield, ACTIONS 87), (sym_ellipsis, ACTIONS 89),
    (anon_sym___mlir_type, ACTIONS 91), (sym_integer, ACTIONS 93), (sym_float, ACTIONS 89),
    (anon_sym_await, ACTIONS 351), (sym_true, ACTIONS 93), (sym_false, ACTIONS 93),
    (sym_none, ACTIONS 93), (sym_comment, ACTIONS 3), (sym_line_continuation, ACTIONS 3),
    (sym__newline, ACTIONS 541), (sym__indent, ACTIONS 543), (sym_string_start, ACTIONS 97)]"

definition parse_table_977 :: "(nat \<times> nat) list" where "parse_table_977 = [
    (sym__simple_statements, STATE 6613), (sym_import_statement, STATE 12239),
    (sym_future_import_statement, STATE 12239), (sym_import_from_statement, STATE 12239),
    (sym_print_statement, STATE 12239), (sym_assert_statement, STATE 12239),
    (sym_comptime_assert_statement, STATE 12239), (sym_expression_statement, STATE 12239),
    (sym_tuple_expression, STATE 12425), (sym_named_expression, STATE 7969),
    (sym__named_expression_lhs, STATE 12752), (sym_return_statement, STATE 12239),
    (sym_delete_statement, STATE 12239), (sym_raise_statement, STATE 12239),
    (sym_pass_statement, STATE 12239), (sym_break_statement, STATE 12239),
    (sym_continue_statement, STATE 12239), (sym_global_statement, STATE 12239),
    (sym_nonlocal_statement, STATE 12239), (sym_exec_statement, STATE 12239),
    (sym_type_alias_statement, STATE 12239), (sym_parameterized_alias_statement, STATE 12239),
    (sym_pattern, STATE 8086), (sym_tuple_pattern, STATE 8101), (sym_list_pattern, STATE 8101),
    (sym_list_splat_pattern, STATE 6795), (sym_as_pattern, STATE 7969),
    (sym_expression, STATE 9623), (sym_primary_expression, STATE 7326),
    (sym_comptime_expression, STATE 7017), (sym_transfer_expression, STATE 7017),
    (sym_not_operator, STATE 7969), (sym_boolean_operator, STATE 7969),
    (sym_binary_operator, STATE 7017), (sym_unary_operator, STATE 7017),
    (sym_comparison_operator, STATE 7969), (sym_lambda, STATE 7969),
    (sym_assignment, STATE 12425), (sym_augmented_assignment, STATE 12425),
    (sym_pattern_list, STATE 8578), (sym_yield, STATE 12425), (sym_attribute, STATE 6796),
    (sym_subscript, STATE 6797), (sym_call, STATE 6768), (sym_type, STATE 10130),
    (sym_called_type, STATE 9093), (sym_function_type, STATE 9093), (sym_splat_type, STATE 9093),
    (sym_generic_type, STATE 8287), (sym_union_type, STATE 9093),
    (sym_intersection_type, STATE 9093), (sym__intersection_operand, STATE 12294),
    (sym_constrained_type, STATE 9093), (sym_member_type, STATE 8165),
    (sym_mlir_type, STATE 7017), (sym_list, STATE 7017), (sym_set, STATE 7017),
    (sym_tuple, STATE 7017), (sym_dictionary, STATE 7017), (sym_struct_literal, STATE 7017),
    (sym_list_comprehension, STATE 7017), (sym_dictionary_comprehension, STATE 7017),
    (sym_set_comprehension, STATE 7017), (sym_generator_expression, STATE 7017),
    (sym_parenthesized_expression, STATE 7017), (sym_conditional_expression, STATE 7969),
    (sym_concatenated_string, STATE 7017), (sym_string, STATE 6729), (sym_await, STATE 7017),
    (sym_identifier, ACTIONS 327), (anon_sym_import, ACTIONS 11), (anon_sym_from, ACTIONS 13),
    (anon_sym_LPAREN, ACTIONS 329), (anon_sym_STAR, ACTIONS 331), (anon_sym_print, ACTIONS 333),
    (anon_sym_comptime, ACTIONS 335), (anon_sym_assert, ACTIONS 23),
    (anon_sym___comptime_assert, ACTIONS 25), (anon_sym_return, ACTIONS 27),
    (anon_sym_del, ACTIONS 29), (anon_sym_raise, ACTIONS 31), (anon_sym_pass, ACTIONS 33),
    (anon_sym_break, ACTIONS 35), (anon_sym_continue, ACTIONS 37), (anon_sym_match, ACTIONS 337),
    (anon_sym_async, ACTIONS 339), (anon_sym_def, ACTIONS 341), (anon_sym_LBRACK, ACTIONS 343),
    (anon_sym_LBRACE, ACTIONS 61), (anon_sym_STAR_STAR, ACTIONS 345),
    (anon_sym_global, ACTIONS 63), (anon_sym_nonlocal, ACTIONS 65), (anon_sym_exec, ACTIONS 347),
    (anon_sym_type, ACTIONS 349), (anon_sym_mut, ACTIONS 339), (anon_sym_out, ACTIONS 339),
    (anon_sym_DASH, ACTIONS 79), (anon_sym_PLUS, ACTIONS 79), (anon_sym_ref, ACTIONS 81),
    (anon_sym_var, ACTIONS 81), (anon_sym_not, ACTIONS 83), (anon_sym_TILDE, ACTIONS 79),
    (anon_sym_lambda, ACTIONS 85), (anon_sym_yield, ACTIONS 87), (sym_ellipsis, ACTIONS 89),
    (anon_sym___mlir_type, ACTIONS 91), (sym_integer, ACTIONS 93), (sym_float, ACTIONS 89),
    (anon_sym_await, ACTIONS 351), (sym_true, ACTIONS 93), (sym_false, ACTIONS 93),
    (sym_none, ACTIONS 93), (sym_comment, ACTIONS 3), (sym_line_continuation, ACTIONS 3),
    (sym__newline, ACTIONS 545), (sym__indent, ACTIONS 547), (sym_string_start, ACTIONS 97)]"

definition parse_table_978 :: "(nat \<times> nat) list" where "parse_table_978 = [
    (sym__simple_statements, STATE 5209), (sym_import_statement, STATE 11814),
    (sym_future_import_statement, STATE 11814), (sym_import_from_statement, STATE 11814),
    (sym_print_statement, STATE 11814), (sym_assert_statement, STATE 11814),
    (sym_comptime_assert_statement, STATE 11814), (sym_expression_statement, STATE 11814),
    (sym_tuple_expression, STATE 12425), (sym_named_expression, STATE 7969),
    (sym__named_expression_lhs, STATE 12752), (sym_return_statement, STATE 11814),
    (sym_delete_statement, STATE 11814), (sym_raise_statement, STATE 11814),
    (sym_pass_statement, STATE 11814), (sym_break_statement, STATE 11814),
    (sym_continue_statement, STATE 11814), (sym_global_statement, STATE 11814),
    (sym_nonlocal_statement, STATE 11814), (sym_exec_statement, STATE 11814),
    (sym_type_alias_statement, STATE 11814), (sym_parameterized_alias_statement, STATE 11814),
    (sym_pattern, STATE 8086), (sym_tuple_pattern, STATE 8101), (sym_list_pattern, STATE 8101),
    (sym_list_splat_pattern, STATE 6795), (sym_as_pattern, STATE 7969),
    (sym_expression, STATE 9623), (sym_primary_expression, STATE 7326),
    (sym_comptime_expression, STATE 7017), (sym_transfer_expression, STATE 7017),
    (sym_not_operator, STATE 7969), (sym_boolean_operator, STATE 7969),
    (sym_binary_operator, STATE 7017), (sym_unary_operator, STATE 7017),
    (sym_comparison_operator, STATE 7969), (sym_lambda, STATE 7969),
    (sym_assignment, STATE 12425), (sym_augmented_assignment, STATE 12425),
    (sym_pattern_list, STATE 8578), (sym_yield, STATE 12425), (sym_attribute, STATE 6796),
    (sym_subscript, STATE 6797), (sym_call, STATE 6768), (sym_type, STATE 10130),
    (sym_called_type, STATE 9093), (sym_function_type, STATE 9093), (sym_splat_type, STATE 9093),
    (sym_generic_type, STATE 8287), (sym_union_type, STATE 9093),
    (sym_intersection_type, STATE 9093), (sym__intersection_operand, STATE 12294),
    (sym_constrained_type, STATE 9093), (sym_member_type, STATE 8165),
    (sym_mlir_type, STATE 7017), (sym_list, STATE 7017), (sym_set, STATE 7017),
    (sym_tuple, STATE 7017), (sym_dictionary, STATE 7017), (sym_struct_literal, STATE 7017),
    (sym_list_comprehension, STATE 7017), (sym_dictionary_comprehension, STATE 7017),
    (sym_set_comprehension, STATE 7017), (sym_generator_expression, STATE 7017),
    (sym_parenthesized_expression, STATE 7017), (sym_conditional_expression, STATE 7969),
    (sym_concatenated_string, STATE 7017), (sym_string, STATE 6729), (sym_await, STATE 7017),
    (sym_identifier, ACTIONS 327), (anon_sym_import, ACTIONS 11), (anon_sym_from, ACTIONS 13),
    (anon_sym_LPAREN, ACTIONS 329), (anon_sym_STAR, ACTIONS 331), (anon_sym_print, ACTIONS 333),
    (anon_sym_comptime, ACTIONS 335), (anon_sym_assert, ACTIONS 23),
    (anon_sym___comptime_assert, ACTIONS 25), (anon_sym_return, ACTIONS 27),
    (anon_sym_del, ACTIONS 29), (anon_sym_raise, ACTIONS 31), (anon_sym_pass, ACTIONS 33),
    (anon_sym_break, ACTIONS 35), (anon_sym_continue, ACTIONS 37), (anon_sym_match, ACTIONS 337),
    (anon_sym_async, ACTIONS 339), (anon_sym_def, ACTIONS 341), (anon_sym_LBRACK, ACTIONS 343),
    (anon_sym_LBRACE, ACTIONS 61), (anon_sym_STAR_STAR, ACTIONS 345),
    (anon_sym_global, ACTIONS 63), (anon_sym_nonlocal, ACTIONS 65), (anon_sym_exec, ACTIONS 347),
    (anon_sym_type, ACTIONS 349), (anon_sym_mut, ACTIONS 339), (anon_sym_out, ACTIONS 339),
    (anon_sym_DASH, ACTIONS 79), (anon_sym_PLUS, ACTIONS 79), (anon_sym_ref, ACTIONS 81),
    (anon_sym_var, ACTIONS 81), (anon_sym_not, ACTIONS 83), (anon_sym_TILDE, ACTIONS 79),
    (anon_sym_lambda, ACTIONS 85), (anon_sym_yield, ACTIONS 87), (sym_ellipsis, ACTIONS 89),
    (anon_sym___mlir_type, ACTIONS 91), (sym_integer, ACTIONS 93), (sym_float, ACTIONS 89),
    (anon_sym_await, ACTIONS 351), (sym_true, ACTIONS 93), (sym_false, ACTIONS 93),
    (sym_none, ACTIONS 93), (sym_comment, ACTIONS 3), (sym_line_continuation, ACTIONS 3),
    (sym__newline, ACTIONS 549), (sym__indent, ACTIONS 551), (sym_string_start, ACTIONS 97)]"

definition parse_table_979 :: "(nat \<times> nat) list" where "parse_table_979 = [
    (sym__simple_statements, STATE 6242), (sym_import_statement, STATE 11814),
    (sym_future_import_statement, STATE 11814), (sym_import_from_statement, STATE 11814),
    (sym_print_statement, STATE 11814), (sym_assert_statement, STATE 11814),
    (sym_comptime_assert_statement, STATE 11814), (sym_expression_statement, STATE 11814),
    (sym_tuple_expression, STATE 12425), (sym_named_expression, STATE 7969),
    (sym__named_expression_lhs, STATE 12752), (sym_return_statement, STATE 11814),
    (sym_delete_statement, STATE 11814), (sym_raise_statement, STATE 11814),
    (sym_pass_statement, STATE 11814), (sym_break_statement, STATE 11814),
    (sym_continue_statement, STATE 11814), (sym_global_statement, STATE 11814),
    (sym_nonlocal_statement, STATE 11814), (sym_exec_statement, STATE 11814),
    (sym_type_alias_statement, STATE 11814), (sym_parameterized_alias_statement, STATE 11814),
    (sym_pattern, STATE 8086), (sym_tuple_pattern, STATE 8101), (sym_list_pattern, STATE 8101),
    (sym_list_splat_pattern, STATE 6795), (sym_as_pattern, STATE 7969),
    (sym_expression, STATE 9623), (sym_primary_expression, STATE 7326),
    (sym_comptime_expression, STATE 7017), (sym_transfer_expression, STATE 7017),
    (sym_not_operator, STATE 7969), (sym_boolean_operator, STATE 7969),
    (sym_binary_operator, STATE 7017), (sym_unary_operator, STATE 7017),
    (sym_comparison_operator, STATE 7969), (sym_lambda, STATE 7969),
    (sym_assignment, STATE 12425), (sym_augmented_assignment, STATE 12425),
    (sym_pattern_list, STATE 8578), (sym_yield, STATE 12425), (sym_attribute, STATE 6796),
    (sym_subscript, STATE 6797), (sym_call, STATE 6768), (sym_type, STATE 10130),
    (sym_called_type, STATE 9093), (sym_function_type, STATE 9093), (sym_splat_type, STATE 9093),
    (sym_generic_type, STATE 8287), (sym_union_type, STATE 9093),
    (sym_intersection_type, STATE 9093), (sym__intersection_operand, STATE 12294),
    (sym_constrained_type, STATE 9093), (sym_member_type, STATE 8165),
    (sym_mlir_type, STATE 7017), (sym_list, STATE 7017), (sym_set, STATE 7017),
    (sym_tuple, STATE 7017), (sym_dictionary, STATE 7017), (sym_struct_literal, STATE 7017),
    (sym_list_comprehension, STATE 7017), (sym_dictionary_comprehension, STATE 7017),
    (sym_set_comprehension, STATE 7017), (sym_generator_expression, STATE 7017),
    (sym_parenthesized_expression, STATE 7017), (sym_conditional_expression, STATE 7969),
    (sym_concatenated_string, STATE 7017), (sym_string, STATE 6729), (sym_await, STATE 7017),
    (sym_identifier, ACTIONS 327), (anon_sym_import, ACTIONS 11), (anon_sym_from, ACTIONS 13),
    (anon_sym_LPAREN, ACTIONS 329), (anon_sym_STAR, ACTIONS 331), (anon_sym_print, ACTIONS 333),
    (anon_sym_comptime, ACTIONS 335), (anon_sym_assert, ACTIONS 23),
    (anon_sym___comptime_assert, ACTIONS 25), (anon_sym_return, ACTIONS 27),
    (anon_sym_del, ACTIONS 29), (anon_sym_raise, ACTIONS 31), (anon_sym_pass, ACTIONS 33),
    (anon_sym_break, ACTIONS 35), (anon_sym_continue, ACTIONS 37), (anon_sym_match, ACTIONS 337),
    (anon_sym_async, ACTIONS 339), (anon_sym_def, ACTIONS 341), (anon_sym_LBRACK, ACTIONS 343),
    (anon_sym_LBRACE, ACTIONS 61), (anon_sym_STAR_STAR, ACTIONS 345),
    (anon_sym_global, ACTIONS 63), (anon_sym_nonlocal, ACTIONS 65), (anon_sym_exec, ACTIONS 347),
    (anon_sym_type, ACTIONS 349), (anon_sym_mut, ACTIONS 339), (anon_sym_out, ACTIONS 339),
    (anon_sym_DASH, ACTIONS 79), (anon_sym_PLUS, ACTIONS 79), (anon_sym_ref, ACTIONS 81),
    (anon_sym_var, ACTIONS 81), (anon_sym_not, ACTIONS 83), (anon_sym_TILDE, ACTIONS 79),
    (anon_sym_lambda, ACTIONS 85), (anon_sym_yield, ACTIONS 87), (sym_ellipsis, ACTIONS 89),
    (anon_sym___mlir_type, ACTIONS 91), (sym_integer, ACTIONS 93), (sym_float, ACTIONS 89),
    (anon_sym_await, ACTIONS 351), (sym_true, ACTIONS 93), (sym_false, ACTIONS 93),
    (sym_none, ACTIONS 93), (sym_comment, ACTIONS 3), (sym_line_continuation, ACTIONS 3),
    (sym__newline, ACTIONS 553), (sym__indent, ACTIONS 555), (sym_string_start, ACTIONS 97)]"

definition parse_table_980 :: "(nat \<times> nat) list" where "parse_table_980 = [
    (sym__simple_statements, STATE 6246), (sym_import_statement, STATE 11814),
    (sym_future_import_statement, STATE 11814), (sym_import_from_statement, STATE 11814),
    (sym_print_statement, STATE 11814), (sym_assert_statement, STATE 11814),
    (sym_comptime_assert_statement, STATE 11814), (sym_expression_statement, STATE 11814),
    (sym_tuple_expression, STATE 12425), (sym_named_expression, STATE 7969),
    (sym__named_expression_lhs, STATE 12752), (sym_return_statement, STATE 11814),
    (sym_delete_statement, STATE 11814), (sym_raise_statement, STATE 11814),
    (sym_pass_statement, STATE 11814), (sym_break_statement, STATE 11814),
    (sym_continue_statement, STATE 11814), (sym_global_statement, STATE 11814),
    (sym_nonlocal_statement, STATE 11814), (sym_exec_statement, STATE 11814),
    (sym_type_alias_statement, STATE 11814), (sym_parameterized_alias_statement, STATE 11814),
    (sym_pattern, STATE 8086), (sym_tuple_pattern, STATE 8101), (sym_list_pattern, STATE 8101),
    (sym_list_splat_pattern, STATE 6795), (sym_as_pattern, STATE 7969),
    (sym_expression, STATE 9623), (sym_primary_expression, STATE 7326),
    (sym_comptime_expression, STATE 7017), (sym_transfer_expression, STATE 7017),
    (sym_not_operator, STATE 7969), (sym_boolean_operator, STATE 7969),
    (sym_binary_operator, STATE 7017), (sym_unary_operator, STATE 7017),
    (sym_comparison_operator, STATE 7969), (sym_lambda, STATE 7969),
    (sym_assignment, STATE 12425), (sym_augmented_assignment, STATE 12425),
    (sym_pattern_list, STATE 8578), (sym_yield, STATE 12425), (sym_attribute, STATE 6796),
    (sym_subscript, STATE 6797), (sym_call, STATE 6768), (sym_type, STATE 10130),
    (sym_called_type, STATE 9093), (sym_function_type, STATE 9093), (sym_splat_type, STATE 9093),
    (sym_generic_type, STATE 8287), (sym_union_type, STATE 9093),
    (sym_intersection_type, STATE 9093), (sym__intersection_operand, STATE 12294),
    (sym_constrained_type, STATE 9093), (sym_member_type, STATE 8165),
    (sym_mlir_type, STATE 7017), (sym_list, STATE 7017), (sym_set, STATE 7017),
    (sym_tuple, STATE 7017), (sym_dictionary, STATE 7017), (sym_struct_literal, STATE 7017),
    (sym_list_comprehension, STATE 7017), (sym_dictionary_comprehension, STATE 7017),
    (sym_set_comprehension, STATE 7017), (sym_generator_expression, STATE 7017),
    (sym_parenthesized_expression, STATE 7017), (sym_conditional_expression, STATE 7969),
    (sym_concatenated_string, STATE 7017), (sym_string, STATE 6729), (sym_await, STATE 7017),
    (sym_identifier, ACTIONS 327), (anon_sym_import, ACTIONS 11), (anon_sym_from, ACTIONS 13),
    (anon_sym_LPAREN, ACTIONS 329), (anon_sym_STAR, ACTIONS 331), (anon_sym_print, ACTIONS 333),
    (anon_sym_comptime, ACTIONS 335), (anon_sym_assert, ACTIONS 23),
    (anon_sym___comptime_assert, ACTIONS 25), (anon_sym_return, ACTIONS 27),
    (anon_sym_del, ACTIONS 29), (anon_sym_raise, ACTIONS 31), (anon_sym_pass, ACTIONS 33),
    (anon_sym_break, ACTIONS 35), (anon_sym_continue, ACTIONS 37), (anon_sym_match, ACTIONS 337),
    (anon_sym_async, ACTIONS 339), (anon_sym_def, ACTIONS 341), (anon_sym_LBRACK, ACTIONS 343),
    (anon_sym_LBRACE, ACTIONS 61), (anon_sym_STAR_STAR, ACTIONS 345),
    (anon_sym_global, ACTIONS 63), (anon_sym_nonlocal, ACTIONS 65), (anon_sym_exec, ACTIONS 347),
    (anon_sym_type, ACTIONS 349), (anon_sym_mut, ACTIONS 339), (anon_sym_out, ACTIONS 339),
    (anon_sym_DASH, ACTIONS 79), (anon_sym_PLUS, ACTIONS 79), (anon_sym_ref, ACTIONS 81),
    (anon_sym_var, ACTIONS 81), (anon_sym_not, ACTIONS 83), (anon_sym_TILDE, ACTIONS 79),
    (anon_sym_lambda, ACTIONS 85), (anon_sym_yield, ACTIONS 87), (sym_ellipsis, ACTIONS 89),
    (anon_sym___mlir_type, ACTIONS 91), (sym_integer, ACTIONS 93), (sym_float, ACTIONS 89),
    (anon_sym_await, ACTIONS 351), (sym_true, ACTIONS 93), (sym_false, ACTIONS 93),
    (sym_none, ACTIONS 93), (sym_comment, ACTIONS 3), (sym_line_continuation, ACTIONS 3),
    (sym__newline, ACTIONS 557), (sym__indent, ACTIONS 559), (sym_string_start, ACTIONS 97)]"

definition parse_table_981 :: "(nat \<times> nat) list" where "parse_table_981 = [
    (sym__simple_statements, STATE 5274), (sym_import_statement, STATE 12239),
    (sym_future_import_statement, STATE 12239), (sym_import_from_statement, STATE 12239),
    (sym_print_statement, STATE 12239), (sym_assert_statement, STATE 12239),
    (sym_comptime_assert_statement, STATE 12239), (sym_expression_statement, STATE 12239),
    (sym_tuple_expression, STATE 12425), (sym_named_expression, STATE 7969),
    (sym__named_expression_lhs, STATE 12752), (sym_return_statement, STATE 12239),
    (sym_delete_statement, STATE 12239), (sym_raise_statement, STATE 12239),
    (sym_pass_statement, STATE 12239), (sym_break_statement, STATE 12239),
    (sym_continue_statement, STATE 12239), (sym_global_statement, STATE 12239),
    (sym_nonlocal_statement, STATE 12239), (sym_exec_statement, STATE 12239),
    (sym_type_alias_statement, STATE 12239), (sym_parameterized_alias_statement, STATE 12239),
    (sym_pattern, STATE 8086), (sym_tuple_pattern, STATE 8101), (sym_list_pattern, STATE 8101),
    (sym_list_splat_pattern, STATE 6795), (sym_as_pattern, STATE 7969),
    (sym_expression, STATE 9623), (sym_primary_expression, STATE 7326),
    (sym_comptime_expression, STATE 7017), (sym_transfer_expression, STATE 7017),
    (sym_not_operator, STATE 7969), (sym_boolean_operator, STATE 7969),
    (sym_binary_operator, STATE 7017), (sym_unary_operator, STATE 7017),
    (sym_comparison_operator, STATE 7969), (sym_lambda, STATE 7969),
    (sym_assignment, STATE 12425), (sym_augmented_assignment, STATE 12425),
    (sym_pattern_list, STATE 8578), (sym_yield, STATE 12425), (sym_attribute, STATE 6796),
    (sym_subscript, STATE 6797), (sym_call, STATE 6768), (sym_type, STATE 10130),
    (sym_called_type, STATE 9093), (sym_function_type, STATE 9093), (sym_splat_type, STATE 9093),
    (sym_generic_type, STATE 8287), (sym_union_type, STATE 9093),
    (sym_intersection_type, STATE 9093), (sym__intersection_operand, STATE 12294),
    (sym_constrained_type, STATE 9093), (sym_member_type, STATE 8165),
    (sym_mlir_type, STATE 7017), (sym_list, STATE 7017), (sym_set, STATE 7017),
    (sym_tuple, STATE 7017), (sym_dictionary, STATE 7017), (sym_struct_literal, STATE 7017),
    (sym_list_comprehension, STATE 7017), (sym_dictionary_comprehension, STATE 7017),
    (sym_set_comprehension, STATE 7017), (sym_generator_expression, STATE 7017),
    (sym_parenthesized_expression, STATE 7017), (sym_conditional_expression, STATE 7969),
    (sym_concatenated_string, STATE 7017), (sym_string, STATE 6729), (sym_await, STATE 7017),
    (sym_identifier, ACTIONS 327), (anon_sym_import, ACTIONS 11), (anon_sym_from, ACTIONS 13),
    (anon_sym_LPAREN, ACTIONS 329), (anon_sym_STAR, ACTIONS 331), (anon_sym_print, ACTIONS 333),
    (anon_sym_comptime, ACTIONS 335), (anon_sym_assert, ACTIONS 23),
    (anon_sym___comptime_assert, ACTIONS 25), (anon_sym_return, ACTIONS 27),
    (anon_sym_del, ACTIONS 29), (anon_sym_raise, ACTIONS 31), (anon_sym_pass, ACTIONS 33),
    (anon_sym_break, ACTIONS 35), (anon_sym_continue, ACTIONS 37), (anon_sym_match, ACTIONS 337),
    (anon_sym_async, ACTIONS 339), (anon_sym_def, ACTIONS 341), (anon_sym_LBRACK, ACTIONS 343),
    (anon_sym_LBRACE, ACTIONS 61), (anon_sym_STAR_STAR, ACTIONS 345),
    (anon_sym_global, ACTIONS 63), (anon_sym_nonlocal, ACTIONS 65), (anon_sym_exec, ACTIONS 347),
    (anon_sym_type, ACTIONS 349), (anon_sym_mut, ACTIONS 339), (anon_sym_out, ACTIONS 339),
    (anon_sym_DASH, ACTIONS 79), (anon_sym_PLUS, ACTIONS 79), (anon_sym_ref, ACTIONS 81),
    (anon_sym_var, ACTIONS 81), (anon_sym_not, ACTIONS 83), (anon_sym_TILDE, ACTIONS 79),
    (anon_sym_lambda, ACTIONS 85), (anon_sym_yield, ACTIONS 87), (sym_ellipsis, ACTIONS 89),
    (anon_sym___mlir_type, ACTIONS 91), (sym_integer, ACTIONS 93), (sym_float, ACTIONS 89),
    (anon_sym_await, ACTIONS 351), (sym_true, ACTIONS 93), (sym_false, ACTIONS 93),
    (sym_none, ACTIONS 93), (sym_comment, ACTIONS 3), (sym_line_continuation, ACTIONS 3),
    (sym__newline, ACTIONS 561), (sym__indent, ACTIONS 563), (sym_string_start, ACTIONS 97)]"

definition parse_table_982 :: "(nat \<times> nat) list" where "parse_table_982 = [
    (sym__simple_statements, STATE 6256), (sym_import_statement, STATE 11814),
    (sym_future_import_statement, STATE 11814), (sym_import_from_statement, STATE 11814),
    (sym_print_statement, STATE 11814), (sym_assert_statement, STATE 11814),
    (sym_comptime_assert_statement, STATE 11814), (sym_expression_statement, STATE 11814),
    (sym_tuple_expression, STATE 12425), (sym_named_expression, STATE 7969),
    (sym__named_expression_lhs, STATE 12752), (sym_return_statement, STATE 11814),
    (sym_delete_statement, STATE 11814), (sym_raise_statement, STATE 11814),
    (sym_pass_statement, STATE 11814), (sym_break_statement, STATE 11814),
    (sym_continue_statement, STATE 11814), (sym_global_statement, STATE 11814),
    (sym_nonlocal_statement, STATE 11814), (sym_exec_statement, STATE 11814),
    (sym_type_alias_statement, STATE 11814), (sym_parameterized_alias_statement, STATE 11814),
    (sym_pattern, STATE 8086), (sym_tuple_pattern, STATE 8101), (sym_list_pattern, STATE 8101),
    (sym_list_splat_pattern, STATE 6795), (sym_as_pattern, STATE 7969),
    (sym_expression, STATE 9623), (sym_primary_expression, STATE 7326),
    (sym_comptime_expression, STATE 7017), (sym_transfer_expression, STATE 7017),
    (sym_not_operator, STATE 7969), (sym_boolean_operator, STATE 7969),
    (sym_binary_operator, STATE 7017), (sym_unary_operator, STATE 7017),
    (sym_comparison_operator, STATE 7969), (sym_lambda, STATE 7969),
    (sym_assignment, STATE 12425), (sym_augmented_assignment, STATE 12425),
    (sym_pattern_list, STATE 8578), (sym_yield, STATE 12425), (sym_attribute, STATE 6796),
    (sym_subscript, STATE 6797), (sym_call, STATE 6768), (sym_type, STATE 10130),
    (sym_called_type, STATE 9093), (sym_function_type, STATE 9093), (sym_splat_type, STATE 9093),
    (sym_generic_type, STATE 8287), (sym_union_type, STATE 9093),
    (sym_intersection_type, STATE 9093), (sym__intersection_operand, STATE 12294),
    (sym_constrained_type, STATE 9093), (sym_member_type, STATE 8165),
    (sym_mlir_type, STATE 7017), (sym_list, STATE 7017), (sym_set, STATE 7017),
    (sym_tuple, STATE 7017), (sym_dictionary, STATE 7017), (sym_struct_literal, STATE 7017),
    (sym_list_comprehension, STATE 7017), (sym_dictionary_comprehension, STATE 7017),
    (sym_set_comprehension, STATE 7017), (sym_generator_expression, STATE 7017),
    (sym_parenthesized_expression, STATE 7017), (sym_conditional_expression, STATE 7969),
    (sym_concatenated_string, STATE 7017), (sym_string, STATE 6729), (sym_await, STATE 7017),
    (sym_identifier, ACTIONS 327), (anon_sym_import, ACTIONS 11), (anon_sym_from, ACTIONS 13),
    (anon_sym_LPAREN, ACTIONS 329), (anon_sym_STAR, ACTIONS 331), (anon_sym_print, ACTIONS 333),
    (anon_sym_comptime, ACTIONS 335), (anon_sym_assert, ACTIONS 23),
    (anon_sym___comptime_assert, ACTIONS 25), (anon_sym_return, ACTIONS 27),
    (anon_sym_del, ACTIONS 29), (anon_sym_raise, ACTIONS 31), (anon_sym_pass, ACTIONS 33),
    (anon_sym_break, ACTIONS 35), (anon_sym_continue, ACTIONS 37), (anon_sym_match, ACTIONS 337),
    (anon_sym_async, ACTIONS 339), (anon_sym_def, ACTIONS 341), (anon_sym_LBRACK, ACTIONS 343),
    (anon_sym_LBRACE, ACTIONS 61), (anon_sym_STAR_STAR, ACTIONS 345),
    (anon_sym_global, ACTIONS 63), (anon_sym_nonlocal, ACTIONS 65), (anon_sym_exec, ACTIONS 347),
    (anon_sym_type, ACTIONS 349), (anon_sym_mut, ACTIONS 339), (anon_sym_out, ACTIONS 339),
    (anon_sym_DASH, ACTIONS 79), (anon_sym_PLUS, ACTIONS 79), (anon_sym_ref, ACTIONS 81),
    (anon_sym_var, ACTIONS 81), (anon_sym_not, ACTIONS 83), (anon_sym_TILDE, ACTIONS 79),
    (anon_sym_lambda, ACTIONS 85), (anon_sym_yield, ACTIONS 87), (sym_ellipsis, ACTIONS 89),
    (anon_sym___mlir_type, ACTIONS 91), (sym_integer, ACTIONS 93), (sym_float, ACTIONS 89),
    (anon_sym_await, ACTIONS 351), (sym_true, ACTIONS 93), (sym_false, ACTIONS 93),
    (sym_none, ACTIONS 93), (sym_comment, ACTIONS 3), (sym_line_continuation, ACTIONS 3),
    (sym__newline, ACTIONS 565), (sym__indent, ACTIONS 567), (sym_string_start, ACTIONS 97)]"

definition parse_table_983 :: "(nat \<times> nat) list" where "parse_table_983 = [
    (sym__simple_statements, STATE 5216), (sym_import_statement, STATE 11814),
    (sym_future_import_statement, STATE 11814), (sym_import_from_statement, STATE 11814),
    (sym_print_statement, STATE 11814), (sym_assert_statement, STATE 11814),
    (sym_comptime_assert_statement, STATE 11814), (sym_expression_statement, STATE 11814),
    (sym_tuple_expression, STATE 12425), (sym_named_expression, STATE 7969),
    (sym__named_expression_lhs, STATE 12752), (sym_return_statement, STATE 11814),
    (sym_delete_statement, STATE 11814), (sym_raise_statement, STATE 11814),
    (sym_pass_statement, STATE 11814), (sym_break_statement, STATE 11814),
    (sym_continue_statement, STATE 11814), (sym_global_statement, STATE 11814),
    (sym_nonlocal_statement, STATE 11814), (sym_exec_statement, STATE 11814),
    (sym_type_alias_statement, STATE 11814), (sym_parameterized_alias_statement, STATE 11814),
    (sym_pattern, STATE 8086), (sym_tuple_pattern, STATE 8101), (sym_list_pattern, STATE 8101),
    (sym_list_splat_pattern, STATE 6795), (sym_as_pattern, STATE 7969),
    (sym_expression, STATE 9623), (sym_primary_expression, STATE 7326),
    (sym_comptime_expression, STATE 7017), (sym_transfer_expression, STATE 7017),
    (sym_not_operator, STATE 7969), (sym_boolean_operator, STATE 7969),
    (sym_binary_operator, STATE 7017), (sym_unary_operator, STATE 7017),
    (sym_comparison_operator, STATE 7969), (sym_lambda, STATE 7969),
    (sym_assignment, STATE 12425), (sym_augmented_assignment, STATE 12425),
    (sym_pattern_list, STATE 8578), (sym_yield, STATE 12425), (sym_attribute, STATE 6796),
    (sym_subscript, STATE 6797), (sym_call, STATE 6768), (sym_type, STATE 10130),
    (sym_called_type, STATE 9093), (sym_function_type, STATE 9093), (sym_splat_type, STATE 9093),
    (sym_generic_type, STATE 8287), (sym_union_type, STATE 9093),
    (sym_intersection_type, STATE 9093), (sym__intersection_operand, STATE 12294),
    (sym_constrained_type, STATE 9093), (sym_member_type, STATE 8165),
    (sym_mlir_type, STATE 7017), (sym_list, STATE 7017), (sym_set, STATE 7017),
    (sym_tuple, STATE 7017), (sym_dictionary, STATE 7017), (sym_struct_literal, STATE 7017),
    (sym_list_comprehension, STATE 7017), (sym_dictionary_comprehension, STATE 7017),
    (sym_set_comprehension, STATE 7017), (sym_generator_expression, STATE 7017),
    (sym_parenthesized_expression, STATE 7017), (sym_conditional_expression, STATE 7969),
    (sym_concatenated_string, STATE 7017), (sym_string, STATE 6729), (sym_await, STATE 7017),
    (sym_identifier, ACTIONS 327), (anon_sym_import, ACTIONS 11), (anon_sym_from, ACTIONS 13),
    (anon_sym_LPAREN, ACTIONS 329), (anon_sym_STAR, ACTIONS 331), (anon_sym_print, ACTIONS 333),
    (anon_sym_comptime, ACTIONS 335), (anon_sym_assert, ACTIONS 23),
    (anon_sym___comptime_assert, ACTIONS 25), (anon_sym_return, ACTIONS 27),
    (anon_sym_del, ACTIONS 29), (anon_sym_raise, ACTIONS 31), (anon_sym_pass, ACTIONS 33),
    (anon_sym_break, ACTIONS 35), (anon_sym_continue, ACTIONS 37), (anon_sym_match, ACTIONS 337),
    (anon_sym_async, ACTIONS 339), (anon_sym_def, ACTIONS 341), (anon_sym_LBRACK, ACTIONS 343),
    (anon_sym_LBRACE, ACTIONS 61), (anon_sym_STAR_STAR, ACTIONS 345),
    (anon_sym_global, ACTIONS 63), (anon_sym_nonlocal, ACTIONS 65), (anon_sym_exec, ACTIONS 347),
    (anon_sym_type, ACTIONS 349), (anon_sym_mut, ACTIONS 339), (anon_sym_out, ACTIONS 339),
    (anon_sym_DASH, ACTIONS 79), (anon_sym_PLUS, ACTIONS 79), (anon_sym_ref, ACTIONS 81),
    (anon_sym_var, ACTIONS 81), (anon_sym_not, ACTIONS 83), (anon_sym_TILDE, ACTIONS 79),
    (anon_sym_lambda, ACTIONS 85), (anon_sym_yield, ACTIONS 87), (sym_ellipsis, ACTIONS 89),
    (anon_sym___mlir_type, ACTIONS 91), (sym_integer, ACTIONS 93), (sym_float, ACTIONS 89),
    (anon_sym_await, ACTIONS 351), (sym_true, ACTIONS 93), (sym_false, ACTIONS 93),
    (sym_none, ACTIONS 93), (sym_comment, ACTIONS 3), (sym_line_continuation, ACTIONS 3),
    (sym__newline, ACTIONS 569), (sym__indent, ACTIONS 571), (sym_string_start, ACTIONS 97)]"

definition parse_table_984 :: "(nat \<times> nat) list" where "parse_table_984 = [
    (sym__simple_statements, STATE 5220), (sym_import_statement, STATE 11814),
    (sym_future_import_statement, STATE 11814), (sym_import_from_statement, STATE 11814),
    (sym_print_statement, STATE 11814), (sym_assert_statement, STATE 11814),
    (sym_comptime_assert_statement, STATE 11814), (sym_expression_statement, STATE 11814),
    (sym_tuple_expression, STATE 12425), (sym_named_expression, STATE 7969),
    (sym__named_expression_lhs, STATE 12752), (sym_return_statement, STATE 11814),
    (sym_delete_statement, STATE 11814), (sym_raise_statement, STATE 11814),
    (sym_pass_statement, STATE 11814), (sym_break_statement, STATE 11814),
    (sym_continue_statement, STATE 11814), (sym_global_statement, STATE 11814),
    (sym_nonlocal_statement, STATE 11814), (sym_exec_statement, STATE 11814),
    (sym_type_alias_statement, STATE 11814), (sym_parameterized_alias_statement, STATE 11814),
    (sym_pattern, STATE 8086), (sym_tuple_pattern, STATE 8101), (sym_list_pattern, STATE 8101),
    (sym_list_splat_pattern, STATE 6795), (sym_as_pattern, STATE 7969),
    (sym_expression, STATE 9623), (sym_primary_expression, STATE 7326),
    (sym_comptime_expression, STATE 7017), (sym_transfer_expression, STATE 7017),
    (sym_not_operator, STATE 7969), (sym_boolean_operator, STATE 7969),
    (sym_binary_operator, STATE 7017), (sym_unary_operator, STATE 7017),
    (sym_comparison_operator, STATE 7969), (sym_lambda, STATE 7969),
    (sym_assignment, STATE 12425), (sym_augmented_assignment, STATE 12425),
    (sym_pattern_list, STATE 8578), (sym_yield, STATE 12425), (sym_attribute, STATE 6796),
    (sym_subscript, STATE 6797), (sym_call, STATE 6768), (sym_type, STATE 10130),
    (sym_called_type, STATE 9093), (sym_function_type, STATE 9093), (sym_splat_type, STATE 9093),
    (sym_generic_type, STATE 8287), (sym_union_type, STATE 9093),
    (sym_intersection_type, STATE 9093), (sym__intersection_operand, STATE 12294),
    (sym_constrained_type, STATE 9093), (sym_member_type, STATE 8165),
    (sym_mlir_type, STATE 7017), (sym_list, STATE 7017), (sym_set, STATE 7017),
    (sym_tuple, STATE 7017), (sym_dictionary, STATE 7017), (sym_struct_literal, STATE 7017),
    (sym_list_comprehension, STATE 7017), (sym_dictionary_comprehension, STATE 7017),
    (sym_set_comprehension, STATE 7017), (sym_generator_expression, STATE 7017),
    (sym_parenthesized_expression, STATE 7017), (sym_conditional_expression, STATE 7969),
    (sym_concatenated_string, STATE 7017), (sym_string, STATE 6729), (sym_await, STATE 7017),
    (sym_identifier, ACTIONS 327), (anon_sym_import, ACTIONS 11), (anon_sym_from, ACTIONS 13),
    (anon_sym_LPAREN, ACTIONS 329), (anon_sym_STAR, ACTIONS 331), (anon_sym_print, ACTIONS 333),
    (anon_sym_comptime, ACTIONS 335), (anon_sym_assert, ACTIONS 23),
    (anon_sym___comptime_assert, ACTIONS 25), (anon_sym_return, ACTIONS 27),
    (anon_sym_del, ACTIONS 29), (anon_sym_raise, ACTIONS 31), (anon_sym_pass, ACTIONS 33),
    (anon_sym_break, ACTIONS 35), (anon_sym_continue, ACTIONS 37), (anon_sym_match, ACTIONS 337),
    (anon_sym_async, ACTIONS 339), (anon_sym_def, ACTIONS 341), (anon_sym_LBRACK, ACTIONS 343),
    (anon_sym_LBRACE, ACTIONS 61), (anon_sym_STAR_STAR, ACTIONS 345),
    (anon_sym_global, ACTIONS 63), (anon_sym_nonlocal, ACTIONS 65), (anon_sym_exec, ACTIONS 347),
    (anon_sym_type, ACTIONS 349), (anon_sym_mut, ACTIONS 339), (anon_sym_out, ACTIONS 339),
    (anon_sym_DASH, ACTIONS 79), (anon_sym_PLUS, ACTIONS 79), (anon_sym_ref, ACTIONS 81),
    (anon_sym_var, ACTIONS 81), (anon_sym_not, ACTIONS 83), (anon_sym_TILDE, ACTIONS 79),
    (anon_sym_lambda, ACTIONS 85), (anon_sym_yield, ACTIONS 87), (sym_ellipsis, ACTIONS 89),
    (anon_sym___mlir_type, ACTIONS 91), (sym_integer, ACTIONS 93), (sym_float, ACTIONS 89),
    (anon_sym_await, ACTIONS 351), (sym_true, ACTIONS 93), (sym_false, ACTIONS 93),
    (sym_none, ACTIONS 93), (sym_comment, ACTIONS 3), (sym_line_continuation, ACTIONS 3),
    (sym__newline, ACTIONS 573), (sym__indent, ACTIONS 575), (sym_string_start, ACTIONS 97)]"

definition parse_table_985 :: "(nat \<times> nat) list" where "parse_table_985 = [
    (sym__simple_statements, STATE 6264), (sym_import_statement, STATE 11814),
    (sym_future_import_statement, STATE 11814), (sym_import_from_statement, STATE 11814),
    (sym_print_statement, STATE 11814), (sym_assert_statement, STATE 11814),
    (sym_comptime_assert_statement, STATE 11814), (sym_expression_statement, STATE 11814),
    (sym_tuple_expression, STATE 12425), (sym_named_expression, STATE 7969),
    (sym__named_expression_lhs, STATE 12752), (sym_return_statement, STATE 11814),
    (sym_delete_statement, STATE 11814), (sym_raise_statement, STATE 11814),
    (sym_pass_statement, STATE 11814), (sym_break_statement, STATE 11814),
    (sym_continue_statement, STATE 11814), (sym_global_statement, STATE 11814),
    (sym_nonlocal_statement, STATE 11814), (sym_exec_statement, STATE 11814),
    (sym_type_alias_statement, STATE 11814), (sym_parameterized_alias_statement, STATE 11814),
    (sym_pattern, STATE 8086), (sym_tuple_pattern, STATE 8101), (sym_list_pattern, STATE 8101),
    (sym_list_splat_pattern, STATE 6795), (sym_as_pattern, STATE 7969),
    (sym_expression, STATE 9623), (sym_primary_expression, STATE 7326),
    (sym_comptime_expression, STATE 7017), (sym_transfer_expression, STATE 7017),
    (sym_not_operator, STATE 7969), (sym_boolean_operator, STATE 7969),
    (sym_binary_operator, STATE 7017), (sym_unary_operator, STATE 7017),
    (sym_comparison_operator, STATE 7969), (sym_lambda, STATE 7969),
    (sym_assignment, STATE 12425), (sym_augmented_assignment, STATE 12425),
    (sym_pattern_list, STATE 8578), (sym_yield, STATE 12425), (sym_attribute, STATE 6796),
    (sym_subscript, STATE 6797), (sym_call, STATE 6768), (sym_type, STATE 10130),
    (sym_called_type, STATE 9093), (sym_function_type, STATE 9093), (sym_splat_type, STATE 9093),
    (sym_generic_type, STATE 8287), (sym_union_type, STATE 9093),
    (sym_intersection_type, STATE 9093), (sym__intersection_operand, STATE 12294),
    (sym_constrained_type, STATE 9093), (sym_member_type, STATE 8165),
    (sym_mlir_type, STATE 7017), (sym_list, STATE 7017), (sym_set, STATE 7017),
    (sym_tuple, STATE 7017), (sym_dictionary, STATE 7017), (sym_struct_literal, STATE 7017),
    (sym_list_comprehension, STATE 7017), (sym_dictionary_comprehension, STATE 7017),
    (sym_set_comprehension, STATE 7017), (sym_generator_expression, STATE 7017),
    (sym_parenthesized_expression, STATE 7017), (sym_conditional_expression, STATE 7969),
    (sym_concatenated_string, STATE 7017), (sym_string, STATE 6729), (sym_await, STATE 7017),
    (sym_identifier, ACTIONS 327), (anon_sym_import, ACTIONS 11), (anon_sym_from, ACTIONS 13),
    (anon_sym_LPAREN, ACTIONS 329), (anon_sym_STAR, ACTIONS 331), (anon_sym_print, ACTIONS 333),
    (anon_sym_comptime, ACTIONS 335), (anon_sym_assert, ACTIONS 23),
    (anon_sym___comptime_assert, ACTIONS 25), (anon_sym_return, ACTIONS 27),
    (anon_sym_del, ACTIONS 29), (anon_sym_raise, ACTIONS 31), (anon_sym_pass, ACTIONS 33),
    (anon_sym_break, ACTIONS 35), (anon_sym_continue, ACTIONS 37), (anon_sym_match, ACTIONS 337),
    (anon_sym_async, ACTIONS 339), (anon_sym_def, ACTIONS 341), (anon_sym_LBRACK, ACTIONS 343),
    (anon_sym_LBRACE, ACTIONS 61), (anon_sym_STAR_STAR, ACTIONS 345),
    (anon_sym_global, ACTIONS 63), (anon_sym_nonlocal, ACTIONS 65), (anon_sym_exec, ACTIONS 347),
    (anon_sym_type, ACTIONS 349), (anon_sym_mut, ACTIONS 339), (anon_sym_out, ACTIONS 339),
    (anon_sym_DASH, ACTIONS 79), (anon_sym_PLUS, ACTIONS 79), (anon_sym_ref, ACTIONS 81),
    (anon_sym_var, ACTIONS 81), (anon_sym_not, ACTIONS 83), (anon_sym_TILDE, ACTIONS 79),
    (anon_sym_lambda, ACTIONS 85), (anon_sym_yield, ACTIONS 87), (sym_ellipsis, ACTIONS 89),
    (anon_sym___mlir_type, ACTIONS 91), (sym_integer, ACTIONS 93), (sym_float, ACTIONS 89),
    (anon_sym_await, ACTIONS 351), (sym_true, ACTIONS 93), (sym_false, ACTIONS 93),
    (sym_none, ACTIONS 93), (sym_comment, ACTIONS 3), (sym_line_continuation, ACTIONS 3),
    (sym__newline, ACTIONS 577), (sym__indent, ACTIONS 579), (sym_string_start, ACTIONS 97)]"

definition parse_table_986 :: "(nat \<times> nat) list" where "parse_table_986 = [
    (sym__simple_statements, STATE 6629), (sym_import_statement, STATE 12239),
    (sym_future_import_statement, STATE 12239), (sym_import_from_statement, STATE 12239),
    (sym_print_statement, STATE 12239), (sym_assert_statement, STATE 12239),
    (sym_comptime_assert_statement, STATE 12239), (sym_expression_statement, STATE 12239),
    (sym_tuple_expression, STATE 12425), (sym_named_expression, STATE 7969),
    (sym__named_expression_lhs, STATE 12752), (sym_return_statement, STATE 12239),
    (sym_delete_statement, STATE 12239), (sym_raise_statement, STATE 12239),
    (sym_pass_statement, STATE 12239), (sym_break_statement, STATE 12239),
    (sym_continue_statement, STATE 12239), (sym_global_statement, STATE 12239),
    (sym_nonlocal_statement, STATE 12239), (sym_exec_statement, STATE 12239),
    (sym_type_alias_statement, STATE 12239), (sym_parameterized_alias_statement, STATE 12239),
    (sym_pattern, STATE 8086), (sym_tuple_pattern, STATE 8101), (sym_list_pattern, STATE 8101),
    (sym_list_splat_pattern, STATE 6795), (sym_as_pattern, STATE 7969),
    (sym_expression, STATE 9623), (sym_primary_expression, STATE 7326),
    (sym_comptime_expression, STATE 7017), (sym_transfer_expression, STATE 7017),
    (sym_not_operator, STATE 7969), (sym_boolean_operator, STATE 7969),
    (sym_binary_operator, STATE 7017), (sym_unary_operator, STATE 7017),
    (sym_comparison_operator, STATE 7969), (sym_lambda, STATE 7969),
    (sym_assignment, STATE 12425), (sym_augmented_assignment, STATE 12425),
    (sym_pattern_list, STATE 8578), (sym_yield, STATE 12425), (sym_attribute, STATE 6796),
    (sym_subscript, STATE 6797), (sym_call, STATE 6768), (sym_type, STATE 10130),
    (sym_called_type, STATE 9093), (sym_function_type, STATE 9093), (sym_splat_type, STATE 9093),
    (sym_generic_type, STATE 8287), (sym_union_type, STATE 9093),
    (sym_intersection_type, STATE 9093), (sym__intersection_operand, STATE 12294),
    (sym_constrained_type, STATE 9093), (sym_member_type, STATE 8165),
    (sym_mlir_type, STATE 7017), (sym_list, STATE 7017), (sym_set, STATE 7017),
    (sym_tuple, STATE 7017), (sym_dictionary, STATE 7017), (sym_struct_literal, STATE 7017),
    (sym_list_comprehension, STATE 7017), (sym_dictionary_comprehension, STATE 7017),
    (sym_set_comprehension, STATE 7017), (sym_generator_expression, STATE 7017),
    (sym_parenthesized_expression, STATE 7017), (sym_conditional_expression, STATE 7969),
    (sym_concatenated_string, STATE 7017), (sym_string, STATE 6729), (sym_await, STATE 7017),
    (sym_identifier, ACTIONS 327), (anon_sym_import, ACTIONS 11), (anon_sym_from, ACTIONS 13),
    (anon_sym_LPAREN, ACTIONS 329), (anon_sym_STAR, ACTIONS 331), (anon_sym_print, ACTIONS 333),
    (anon_sym_comptime, ACTIONS 335), (anon_sym_assert, ACTIONS 23),
    (anon_sym___comptime_assert, ACTIONS 25), (anon_sym_return, ACTIONS 27),
    (anon_sym_del, ACTIONS 29), (anon_sym_raise, ACTIONS 31), (anon_sym_pass, ACTIONS 33),
    (anon_sym_break, ACTIONS 35), (anon_sym_continue, ACTIONS 37), (anon_sym_match, ACTIONS 337),
    (anon_sym_async, ACTIONS 339), (anon_sym_def, ACTIONS 341), (anon_sym_LBRACK, ACTIONS 343),
    (anon_sym_LBRACE, ACTIONS 61), (anon_sym_STAR_STAR, ACTIONS 345),
    (anon_sym_global, ACTIONS 63), (anon_sym_nonlocal, ACTIONS 65), (anon_sym_exec, ACTIONS 347),
    (anon_sym_type, ACTIONS 349), (anon_sym_mut, ACTIONS 339), (anon_sym_out, ACTIONS 339),
    (anon_sym_DASH, ACTIONS 79), (anon_sym_PLUS, ACTIONS 79), (anon_sym_ref, ACTIONS 81),
    (anon_sym_var, ACTIONS 81), (anon_sym_not, ACTIONS 83), (anon_sym_TILDE, ACTIONS 79),
    (anon_sym_lambda, ACTIONS 85), (anon_sym_yield, ACTIONS 87), (sym_ellipsis, ACTIONS 89),
    (anon_sym___mlir_type, ACTIONS 91), (sym_integer, ACTIONS 93), (sym_float, ACTIONS 89),
    (anon_sym_await, ACTIONS 351), (sym_true, ACTIONS 93), (sym_false, ACTIONS 93),
    (sym_none, ACTIONS 93), (sym_comment, ACTIONS 3), (sym_line_continuation, ACTIONS 3),
    (sym__newline, ACTIONS 581), (sym__indent, ACTIONS 583), (sym_string_start, ACTIONS 97)]"

definition parse_table_987 :: "(nat \<times> nat) list" where "parse_table_987 = [
    (sym__simple_statements, STATE 5240), (sym_import_statement, STATE 11814),
    (sym_future_import_statement, STATE 11814), (sym_import_from_statement, STATE 11814),
    (sym_print_statement, STATE 11814), (sym_assert_statement, STATE 11814),
    (sym_comptime_assert_statement, STATE 11814), (sym_expression_statement, STATE 11814),
    (sym_tuple_expression, STATE 12425), (sym_named_expression, STATE 7969),
    (sym__named_expression_lhs, STATE 12752), (sym_return_statement, STATE 11814),
    (sym_delete_statement, STATE 11814), (sym_raise_statement, STATE 11814),
    (sym_pass_statement, STATE 11814), (sym_break_statement, STATE 11814),
    (sym_continue_statement, STATE 11814), (sym_global_statement, STATE 11814),
    (sym_nonlocal_statement, STATE 11814), (sym_exec_statement, STATE 11814),
    (sym_type_alias_statement, STATE 11814), (sym_parameterized_alias_statement, STATE 11814),
    (sym_pattern, STATE 8086), (sym_tuple_pattern, STATE 8101), (sym_list_pattern, STATE 8101),
    (sym_list_splat_pattern, STATE 6795), (sym_as_pattern, STATE 7969),
    (sym_expression, STATE 9623), (sym_primary_expression, STATE 7326),
    (sym_comptime_expression, STATE 7017), (sym_transfer_expression, STATE 7017),
    (sym_not_operator, STATE 7969), (sym_boolean_operator, STATE 7969),
    (sym_binary_operator, STATE 7017), (sym_unary_operator, STATE 7017),
    (sym_comparison_operator, STATE 7969), (sym_lambda, STATE 7969),
    (sym_assignment, STATE 12425), (sym_augmented_assignment, STATE 12425),
    (sym_pattern_list, STATE 8578), (sym_yield, STATE 12425), (sym_attribute, STATE 6796),
    (sym_subscript, STATE 6797), (sym_call, STATE 6768), (sym_type, STATE 10130),
    (sym_called_type, STATE 9093), (sym_function_type, STATE 9093), (sym_splat_type, STATE 9093),
    (sym_generic_type, STATE 8287), (sym_union_type, STATE 9093),
    (sym_intersection_type, STATE 9093), (sym__intersection_operand, STATE 12294),
    (sym_constrained_type, STATE 9093), (sym_member_type, STATE 8165),
    (sym_mlir_type, STATE 7017), (sym_list, STATE 7017), (sym_set, STATE 7017),
    (sym_tuple, STATE 7017), (sym_dictionary, STATE 7017), (sym_struct_literal, STATE 7017),
    (sym_list_comprehension, STATE 7017), (sym_dictionary_comprehension, STATE 7017),
    (sym_set_comprehension, STATE 7017), (sym_generator_expression, STATE 7017),
    (sym_parenthesized_expression, STATE 7017), (sym_conditional_expression, STATE 7969),
    (sym_concatenated_string, STATE 7017), (sym_string, STATE 6729), (sym_await, STATE 7017),
    (sym_identifier, ACTIONS 327), (anon_sym_import, ACTIONS 11), (anon_sym_from, ACTIONS 13),
    (anon_sym_LPAREN, ACTIONS 329), (anon_sym_STAR, ACTIONS 331), (anon_sym_print, ACTIONS 333),
    (anon_sym_comptime, ACTIONS 335), (anon_sym_assert, ACTIONS 23),
    (anon_sym___comptime_assert, ACTIONS 25), (anon_sym_return, ACTIONS 27),
    (anon_sym_del, ACTIONS 29), (anon_sym_raise, ACTIONS 31), (anon_sym_pass, ACTIONS 33),
    (anon_sym_break, ACTIONS 35), (anon_sym_continue, ACTIONS 37), (anon_sym_match, ACTIONS 337),
    (anon_sym_async, ACTIONS 339), (anon_sym_def, ACTIONS 341), (anon_sym_LBRACK, ACTIONS 343),
    (anon_sym_LBRACE, ACTIONS 61), (anon_sym_STAR_STAR, ACTIONS 345),
    (anon_sym_global, ACTIONS 63), (anon_sym_nonlocal, ACTIONS 65), (anon_sym_exec, ACTIONS 347),
    (anon_sym_type, ACTIONS 349), (anon_sym_mut, ACTIONS 339), (anon_sym_out, ACTIONS 339),
    (anon_sym_DASH, ACTIONS 79), (anon_sym_PLUS, ACTIONS 79), (anon_sym_ref, ACTIONS 81),
    (anon_sym_var, ACTIONS 81), (anon_sym_not, ACTIONS 83), (anon_sym_TILDE, ACTIONS 79),
    (anon_sym_lambda, ACTIONS 85), (anon_sym_yield, ACTIONS 87), (sym_ellipsis, ACTIONS 89),
    (anon_sym___mlir_type, ACTIONS 91), (sym_integer, ACTIONS 93), (sym_float, ACTIONS 89),
    (anon_sym_await, ACTIONS 351), (sym_true, ACTIONS 93), (sym_false, ACTIONS 93),
    (sym_none, ACTIONS 93), (sym_comment, ACTIONS 3), (sym_line_continuation, ACTIONS 3),
    (sym__newline, ACTIONS 585), (sym__indent, ACTIONS 587), (sym_string_start, ACTIONS 97)]"

definition parse_table_988 :: "(nat \<times> nat) list" where "parse_table_988 = [
    (sym__simple_statements, STATE 4790), (sym_import_statement, STATE 12239),
    (sym_future_import_statement, STATE 12239), (sym_import_from_statement, STATE 12239),
    (sym_print_statement, STATE 12239), (sym_assert_statement, STATE 12239),
    (sym_comptime_assert_statement, STATE 12239), (sym_expression_statement, STATE 12239),
    (sym_tuple_expression, STATE 12425), (sym_named_expression, STATE 7969),
    (sym__named_expression_lhs, STATE 12752), (sym_return_statement, STATE 12239),
    (sym_delete_statement, STATE 12239), (sym_raise_statement, STATE 12239),
    (sym_pass_statement, STATE 12239), (sym_break_statement, STATE 12239),
    (sym_continue_statement, STATE 12239), (sym_global_statement, STATE 12239),
    (sym_nonlocal_statement, STATE 12239), (sym_exec_statement, STATE 12239),
    (sym_type_alias_statement, STATE 12239), (sym_parameterized_alias_statement, STATE 12239),
    (sym_pattern, STATE 8086), (sym_tuple_pattern, STATE 8101), (sym_list_pattern, STATE 8101),
    (sym_list_splat_pattern, STATE 6795), (sym_as_pattern, STATE 7969),
    (sym_expression, STATE 9623), (sym_primary_expression, STATE 7326),
    (sym_comptime_expression, STATE 7017), (sym_transfer_expression, STATE 7017),
    (sym_not_operator, STATE 7969), (sym_boolean_operator, STATE 7969),
    (sym_binary_operator, STATE 7017), (sym_unary_operator, STATE 7017),
    (sym_comparison_operator, STATE 7969), (sym_lambda, STATE 7969),
    (sym_assignment, STATE 12425), (sym_augmented_assignment, STATE 12425),
    (sym_pattern_list, STATE 8578), (sym_yield, STATE 12425), (sym_attribute, STATE 6796),
    (sym_subscript, STATE 6797), (sym_call, STATE 6768), (sym_type, STATE 10130),
    (sym_called_type, STATE 9093), (sym_function_type, STATE 9093), (sym_splat_type, STATE 9093),
    (sym_generic_type, STATE 8287), (sym_union_type, STATE 9093),
    (sym_intersection_type, STATE 9093), (sym__intersection_operand, STATE 12294),
    (sym_constrained_type, STATE 9093), (sym_member_type, STATE 8165),
    (sym_mlir_type, STATE 7017), (sym_list, STATE 7017), (sym_set, STATE 7017),
    (sym_tuple, STATE 7017), (sym_dictionary, STATE 7017), (sym_struct_literal, STATE 7017),
    (sym_list_comprehension, STATE 7017), (sym_dictionary_comprehension, STATE 7017),
    (sym_set_comprehension, STATE 7017), (sym_generator_expression, STATE 7017),
    (sym_parenthesized_expression, STATE 7017), (sym_conditional_expression, STATE 7969),
    (sym_concatenated_string, STATE 7017), (sym_string, STATE 6729), (sym_await, STATE 7017),
    (sym_identifier, ACTIONS 327), (anon_sym_import, ACTIONS 11), (anon_sym_from, ACTIONS 13),
    (anon_sym_LPAREN, ACTIONS 329), (anon_sym_STAR, ACTIONS 331), (anon_sym_print, ACTIONS 333),
    (anon_sym_comptime, ACTIONS 335), (anon_sym_assert, ACTIONS 23),
    (anon_sym___comptime_assert, ACTIONS 25), (anon_sym_return, ACTIONS 27),
    (anon_sym_del, ACTIONS 29), (anon_sym_raise, ACTIONS 31), (anon_sym_pass, ACTIONS 33),
    (anon_sym_break, ACTIONS 35), (anon_sym_continue, ACTIONS 37), (anon_sym_match, ACTIONS 337),
    (anon_sym_async, ACTIONS 339), (anon_sym_def, ACTIONS 341), (anon_sym_LBRACK, ACTIONS 343),
    (anon_sym_LBRACE, ACTIONS 61), (anon_sym_STAR_STAR, ACTIONS 345),
    (anon_sym_global, ACTIONS 63), (anon_sym_nonlocal, ACTIONS 65), (anon_sym_exec, ACTIONS 347),
    (anon_sym_type, ACTIONS 349), (anon_sym_mut, ACTIONS 339), (anon_sym_out, ACTIONS 339),
    (anon_sym_DASH, ACTIONS 79), (anon_sym_PLUS, ACTIONS 79), (anon_sym_ref, ACTIONS 81),
    (anon_sym_var, ACTIONS 81), (anon_sym_not, ACTIONS 83), (anon_sym_TILDE, ACTIONS 79),
    (anon_sym_lambda, ACTIONS 85), (anon_sym_yield, ACTIONS 87), (sym_ellipsis, ACTIONS 89),
    (anon_sym___mlir_type, ACTIONS 91), (sym_integer, ACTIONS 93), (sym_float, ACTIONS 89),
    (anon_sym_await, ACTIONS 351), (sym_true, ACTIONS 93), (sym_false, ACTIONS 93),
    (sym_none, ACTIONS 93), (sym_comment, ACTIONS 3), (sym_line_continuation, ACTIONS 3),
    (sym__newline, ACTIONS 589), (sym__indent, ACTIONS 591), (sym_string_start, ACTIONS 97)]"

definition parse_table_989 :: "(nat \<times> nat) list" where "parse_table_989 = [
    (sym__simple_statements, STATE 5713), (sym_import_statement, STATE 12239),
    (sym_future_import_statement, STATE 12239), (sym_import_from_statement, STATE 12239),
    (sym_print_statement, STATE 12239), (sym_assert_statement, STATE 12239),
    (sym_comptime_assert_statement, STATE 12239), (sym_expression_statement, STATE 12239),
    (sym_tuple_expression, STATE 12425), (sym_named_expression, STATE 7969),
    (sym__named_expression_lhs, STATE 12752), (sym_return_statement, STATE 12239),
    (sym_delete_statement, STATE 12239), (sym_raise_statement, STATE 12239),
    (sym_pass_statement, STATE 12239), (sym_break_statement, STATE 12239),
    (sym_continue_statement, STATE 12239), (sym_global_statement, STATE 12239),
    (sym_nonlocal_statement, STATE 12239), (sym_exec_statement, STATE 12239),
    (sym_type_alias_statement, STATE 12239), (sym_parameterized_alias_statement, STATE 12239),
    (sym_pattern, STATE 8086), (sym_tuple_pattern, STATE 8101), (sym_list_pattern, STATE 8101),
    (sym_list_splat_pattern, STATE 6795), (sym_as_pattern, STATE 7969),
    (sym_expression, STATE 9623), (sym_primary_expression, STATE 7326),
    (sym_comptime_expression, STATE 7017), (sym_transfer_expression, STATE 7017),
    (sym_not_operator, STATE 7969), (sym_boolean_operator, STATE 7969),
    (sym_binary_operator, STATE 7017), (sym_unary_operator, STATE 7017),
    (sym_comparison_operator, STATE 7969), (sym_lambda, STATE 7969),
    (sym_assignment, STATE 12425), (sym_augmented_assignment, STATE 12425),
    (sym_pattern_list, STATE 8578), (sym_yield, STATE 12425), (sym_attribute, STATE 6796),
    (sym_subscript, STATE 6797), (sym_call, STATE 6768), (sym_type, STATE 10130),
    (sym_called_type, STATE 9093), (sym_function_type, STATE 9093), (sym_splat_type, STATE 9093),
    (sym_generic_type, STATE 8287), (sym_union_type, STATE 9093),
    (sym_intersection_type, STATE 9093), (sym__intersection_operand, STATE 12294),
    (sym_constrained_type, STATE 9093), (sym_member_type, STATE 8165),
    (sym_mlir_type, STATE 7017), (sym_list, STATE 7017), (sym_set, STATE 7017),
    (sym_tuple, STATE 7017), (sym_dictionary, STATE 7017), (sym_struct_literal, STATE 7017),
    (sym_list_comprehension, STATE 7017), (sym_dictionary_comprehension, STATE 7017),
    (sym_set_comprehension, STATE 7017), (sym_generator_expression, STATE 7017),
    (sym_parenthesized_expression, STATE 7017), (sym_conditional_expression, STATE 7969),
    (sym_concatenated_string, STATE 7017), (sym_string, STATE 6729), (sym_await, STATE 7017),
    (sym_identifier, ACTIONS 327), (anon_sym_import, ACTIONS 11), (anon_sym_from, ACTIONS 13),
    (anon_sym_LPAREN, ACTIONS 329), (anon_sym_STAR, ACTIONS 331), (anon_sym_print, ACTIONS 333),
    (anon_sym_comptime, ACTIONS 335), (anon_sym_assert, ACTIONS 23),
    (anon_sym___comptime_assert, ACTIONS 25), (anon_sym_return, ACTIONS 27),
    (anon_sym_del, ACTIONS 29), (anon_sym_raise, ACTIONS 31), (anon_sym_pass, ACTIONS 33),
    (anon_sym_break, ACTIONS 35), (anon_sym_continue, ACTIONS 37), (anon_sym_match, ACTIONS 337),
    (anon_sym_async, ACTIONS 339), (anon_sym_def, ACTIONS 341), (anon_sym_LBRACK, ACTIONS 343),
    (anon_sym_LBRACE, ACTIONS 61), (anon_sym_STAR_STAR, ACTIONS 345),
    (anon_sym_global, ACTIONS 63), (anon_sym_nonlocal, ACTIONS 65), (anon_sym_exec, ACTIONS 347),
    (anon_sym_type, ACTIONS 349), (anon_sym_mut, ACTIONS 339), (anon_sym_out, ACTIONS 339),
    (anon_sym_DASH, ACTIONS 79), (anon_sym_PLUS, ACTIONS 79), (anon_sym_ref, ACTIONS 81),
    (anon_sym_var, ACTIONS 81), (anon_sym_not, ACTIONS 83), (anon_sym_TILDE, ACTIONS 79),
    (anon_sym_lambda, ACTIONS 85), (anon_sym_yield, ACTIONS 87), (sym_ellipsis, ACTIONS 89),
    (anon_sym___mlir_type, ACTIONS 91), (sym_integer, ACTIONS 93), (sym_float, ACTIONS 89),
    (anon_sym_await, ACTIONS 351), (sym_true, ACTIONS 93), (sym_false, ACTIONS 93),
    (sym_none, ACTIONS 93), (sym_comment, ACTIONS 3), (sym_line_continuation, ACTIONS 3),
    (sym__newline, ACTIONS 593), (sym__indent, ACTIONS 595), (sym_string_start, ACTIONS 97)]"

definition parse_table_990 :: "(nat \<times> nat) list" where "parse_table_990 = [
    (sym__simple_statements, STATE 6278), (sym_import_statement, STATE 11814),
    (sym_future_import_statement, STATE 11814), (sym_import_from_statement, STATE 11814),
    (sym_print_statement, STATE 11814), (sym_assert_statement, STATE 11814),
    (sym_comptime_assert_statement, STATE 11814), (sym_expression_statement, STATE 11814),
    (sym_tuple_expression, STATE 12425), (sym_named_expression, STATE 7969),
    (sym__named_expression_lhs, STATE 12752), (sym_return_statement, STATE 11814),
    (sym_delete_statement, STATE 11814), (sym_raise_statement, STATE 11814),
    (sym_pass_statement, STATE 11814), (sym_break_statement, STATE 11814),
    (sym_continue_statement, STATE 11814), (sym_global_statement, STATE 11814),
    (sym_nonlocal_statement, STATE 11814), (sym_exec_statement, STATE 11814),
    (sym_type_alias_statement, STATE 11814), (sym_parameterized_alias_statement, STATE 11814),
    (sym_pattern, STATE 8086), (sym_tuple_pattern, STATE 8101), (sym_list_pattern, STATE 8101),
    (sym_list_splat_pattern, STATE 6795), (sym_as_pattern, STATE 7969),
    (sym_expression, STATE 9623), (sym_primary_expression, STATE 7326),
    (sym_comptime_expression, STATE 7017), (sym_transfer_expression, STATE 7017),
    (sym_not_operator, STATE 7969), (sym_boolean_operator, STATE 7969),
    (sym_binary_operator, STATE 7017), (sym_unary_operator, STATE 7017),
    (sym_comparison_operator, STATE 7969), (sym_lambda, STATE 7969),
    (sym_assignment, STATE 12425), (sym_augmented_assignment, STATE 12425),
    (sym_pattern_list, STATE 8578), (sym_yield, STATE 12425), (sym_attribute, STATE 6796),
    (sym_subscript, STATE 6797), (sym_call, STATE 6768), (sym_type, STATE 10130),
    (sym_called_type, STATE 9093), (sym_function_type, STATE 9093), (sym_splat_type, STATE 9093),
    (sym_generic_type, STATE 8287), (sym_union_type, STATE 9093),
    (sym_intersection_type, STATE 9093), (sym__intersection_operand, STATE 12294),
    (sym_constrained_type, STATE 9093), (sym_member_type, STATE 8165),
    (sym_mlir_type, STATE 7017), (sym_list, STATE 7017), (sym_set, STATE 7017),
    (sym_tuple, STATE 7017), (sym_dictionary, STATE 7017), (sym_struct_literal, STATE 7017),
    (sym_list_comprehension, STATE 7017), (sym_dictionary_comprehension, STATE 7017),
    (sym_set_comprehension, STATE 7017), (sym_generator_expression, STATE 7017),
    (sym_parenthesized_expression, STATE 7017), (sym_conditional_expression, STATE 7969),
    (sym_concatenated_string, STATE 7017), (sym_string, STATE 6729), (sym_await, STATE 7017),
    (sym_identifier, ACTIONS 327), (anon_sym_import, ACTIONS 11), (anon_sym_from, ACTIONS 13),
    (anon_sym_LPAREN, ACTIONS 329), (anon_sym_STAR, ACTIONS 331), (anon_sym_print, ACTIONS 333),
    (anon_sym_comptime, ACTIONS 335), (anon_sym_assert, ACTIONS 23),
    (anon_sym___comptime_assert, ACTIONS 25), (anon_sym_return, ACTIONS 27),
    (anon_sym_del, ACTIONS 29), (anon_sym_raise, ACTIONS 31), (anon_sym_pass, ACTIONS 33),
    (anon_sym_break, ACTIONS 35), (anon_sym_continue, ACTIONS 37), (anon_sym_match, ACTIONS 337),
    (anon_sym_async, ACTIONS 339), (anon_sym_def, ACTIONS 341), (anon_sym_LBRACK, ACTIONS 343),
    (anon_sym_LBRACE, ACTIONS 61), (anon_sym_STAR_STAR, ACTIONS 345),
    (anon_sym_global, ACTIONS 63), (anon_sym_nonlocal, ACTIONS 65), (anon_sym_exec, ACTIONS 347),
    (anon_sym_type, ACTIONS 349), (anon_sym_mut, ACTIONS 339), (anon_sym_out, ACTIONS 339),
    (anon_sym_DASH, ACTIONS 79), (anon_sym_PLUS, ACTIONS 79), (anon_sym_ref, ACTIONS 81),
    (anon_sym_var, ACTIONS 81), (anon_sym_not, ACTIONS 83), (anon_sym_TILDE, ACTIONS 79),
    (anon_sym_lambda, ACTIONS 85), (anon_sym_yield, ACTIONS 87), (sym_ellipsis, ACTIONS 89),
    (anon_sym___mlir_type, ACTIONS 91), (sym_integer, ACTIONS 93), (sym_float, ACTIONS 89),
    (anon_sym_await, ACTIONS 351), (sym_true, ACTIONS 93), (sym_false, ACTIONS 93),
    (sym_none, ACTIONS 93), (sym_comment, ACTIONS 3), (sym_line_continuation, ACTIONS 3),
    (sym__newline, ACTIONS 597), (sym__indent, ACTIONS 599), (sym_string_start, ACTIONS 97)]"

definition parse_table_991 :: "(nat \<times> nat) list" where "parse_table_991 = [
    (sym__simple_statements, STATE 6280), (sym_import_statement, STATE 11814),
    (sym_future_import_statement, STATE 11814), (sym_import_from_statement, STATE 11814),
    (sym_print_statement, STATE 11814), (sym_assert_statement, STATE 11814),
    (sym_comptime_assert_statement, STATE 11814), (sym_expression_statement, STATE 11814),
    (sym_tuple_expression, STATE 12425), (sym_named_expression, STATE 7969),
    (sym__named_expression_lhs, STATE 12752), (sym_return_statement, STATE 11814),
    (sym_delete_statement, STATE 11814), (sym_raise_statement, STATE 11814),
    (sym_pass_statement, STATE 11814), (sym_break_statement, STATE 11814),
    (sym_continue_statement, STATE 11814), (sym_global_statement, STATE 11814),
    (sym_nonlocal_statement, STATE 11814), (sym_exec_statement, STATE 11814),
    (sym_type_alias_statement, STATE 11814), (sym_parameterized_alias_statement, STATE 11814),
    (sym_pattern, STATE 8086), (sym_tuple_pattern, STATE 8101), (sym_list_pattern, STATE 8101),
    (sym_list_splat_pattern, STATE 6795), (sym_as_pattern, STATE 7969),
    (sym_expression, STATE 9623), (sym_primary_expression, STATE 7326),
    (sym_comptime_expression, STATE 7017), (sym_transfer_expression, STATE 7017),
    (sym_not_operator, STATE 7969), (sym_boolean_operator, STATE 7969),
    (sym_binary_operator, STATE 7017), (sym_unary_operator, STATE 7017),
    (sym_comparison_operator, STATE 7969), (sym_lambda, STATE 7969),
    (sym_assignment, STATE 12425), (sym_augmented_assignment, STATE 12425),
    (sym_pattern_list, STATE 8578), (sym_yield, STATE 12425), (sym_attribute, STATE 6796),
    (sym_subscript, STATE 6797), (sym_call, STATE 6768), (sym_type, STATE 10130),
    (sym_called_type, STATE 9093), (sym_function_type, STATE 9093), (sym_splat_type, STATE 9093),
    (sym_generic_type, STATE 8287), (sym_union_type, STATE 9093),
    (sym_intersection_type, STATE 9093), (sym__intersection_operand, STATE 12294),
    (sym_constrained_type, STATE 9093), (sym_member_type, STATE 8165),
    (sym_mlir_type, STATE 7017), (sym_list, STATE 7017), (sym_set, STATE 7017),
    (sym_tuple, STATE 7017), (sym_dictionary, STATE 7017), (sym_struct_literal, STATE 7017),
    (sym_list_comprehension, STATE 7017), (sym_dictionary_comprehension, STATE 7017),
    (sym_set_comprehension, STATE 7017), (sym_generator_expression, STATE 7017),
    (sym_parenthesized_expression, STATE 7017), (sym_conditional_expression, STATE 7969),
    (sym_concatenated_string, STATE 7017), (sym_string, STATE 6729), (sym_await, STATE 7017),
    (sym_identifier, ACTIONS 327), (anon_sym_import, ACTIONS 11), (anon_sym_from, ACTIONS 13),
    (anon_sym_LPAREN, ACTIONS 329), (anon_sym_STAR, ACTIONS 331), (anon_sym_print, ACTIONS 333),
    (anon_sym_comptime, ACTIONS 335), (anon_sym_assert, ACTIONS 23),
    (anon_sym___comptime_assert, ACTIONS 25), (anon_sym_return, ACTIONS 27),
    (anon_sym_del, ACTIONS 29), (anon_sym_raise, ACTIONS 31), (anon_sym_pass, ACTIONS 33),
    (anon_sym_break, ACTIONS 35), (anon_sym_continue, ACTIONS 37), (anon_sym_match, ACTIONS 337),
    (anon_sym_async, ACTIONS 339), (anon_sym_def, ACTIONS 341), (anon_sym_LBRACK, ACTIONS 343),
    (anon_sym_LBRACE, ACTIONS 61), (anon_sym_STAR_STAR, ACTIONS 345),
    (anon_sym_global, ACTIONS 63), (anon_sym_nonlocal, ACTIONS 65), (anon_sym_exec, ACTIONS 347),
    (anon_sym_type, ACTIONS 349), (anon_sym_mut, ACTIONS 339), (anon_sym_out, ACTIONS 339),
    (anon_sym_DASH, ACTIONS 79), (anon_sym_PLUS, ACTIONS 79), (anon_sym_ref, ACTIONS 81),
    (anon_sym_var, ACTIONS 81), (anon_sym_not, ACTIONS 83), (anon_sym_TILDE, ACTIONS 79),
    (anon_sym_lambda, ACTIONS 85), (anon_sym_yield, ACTIONS 87), (sym_ellipsis, ACTIONS 89),
    (anon_sym___mlir_type, ACTIONS 91), (sym_integer, ACTIONS 93), (sym_float, ACTIONS 89),
    (anon_sym_await, ACTIONS 351), (sym_true, ACTIONS 93), (sym_false, ACTIONS 93),
    (sym_none, ACTIONS 93), (sym_comment, ACTIONS 3), (sym_line_continuation, ACTIONS 3),
    (sym__newline, ACTIONS 601), (sym__indent, ACTIONS 603), (sym_string_start, ACTIONS 97)]"

definition parse_table_992 :: "(nat \<times> nat) list" where "parse_table_992 = [
    (sym__simple_statements, STATE 5316), (sym_import_statement, STATE 12239),
    (sym_future_import_statement, STATE 12239), (sym_import_from_statement, STATE 12239),
    (sym_print_statement, STATE 12239), (sym_assert_statement, STATE 12239),
    (sym_comptime_assert_statement, STATE 12239), (sym_expression_statement, STATE 12239),
    (sym_tuple_expression, STATE 12425), (sym_named_expression, STATE 7969),
    (sym__named_expression_lhs, STATE 12752), (sym_return_statement, STATE 12239),
    (sym_delete_statement, STATE 12239), (sym_raise_statement, STATE 12239),
    (sym_pass_statement, STATE 12239), (sym_break_statement, STATE 12239),
    (sym_continue_statement, STATE 12239), (sym_global_statement, STATE 12239),
    (sym_nonlocal_statement, STATE 12239), (sym_exec_statement, STATE 12239),
    (sym_type_alias_statement, STATE 12239), (sym_parameterized_alias_statement, STATE 12239),
    (sym_pattern, STATE 8086), (sym_tuple_pattern, STATE 8101), (sym_list_pattern, STATE 8101),
    (sym_list_splat_pattern, STATE 6795), (sym_as_pattern, STATE 7969),
    (sym_expression, STATE 9623), (sym_primary_expression, STATE 7326),
    (sym_comptime_expression, STATE 7017), (sym_transfer_expression, STATE 7017),
    (sym_not_operator, STATE 7969), (sym_boolean_operator, STATE 7969),
    (sym_binary_operator, STATE 7017), (sym_unary_operator, STATE 7017),
    (sym_comparison_operator, STATE 7969), (sym_lambda, STATE 7969),
    (sym_assignment, STATE 12425), (sym_augmented_assignment, STATE 12425),
    (sym_pattern_list, STATE 8578), (sym_yield, STATE 12425), (sym_attribute, STATE 6796),
    (sym_subscript, STATE 6797), (sym_call, STATE 6768), (sym_type, STATE 10130),
    (sym_called_type, STATE 9093), (sym_function_type, STATE 9093), (sym_splat_type, STATE 9093),
    (sym_generic_type, STATE 8287), (sym_union_type, STATE 9093),
    (sym_intersection_type, STATE 9093), (sym__intersection_operand, STATE 12294),
    (sym_constrained_type, STATE 9093), (sym_member_type, STATE 8165),
    (sym_mlir_type, STATE 7017), (sym_list, STATE 7017), (sym_set, STATE 7017),
    (sym_tuple, STATE 7017), (sym_dictionary, STATE 7017), (sym_struct_literal, STATE 7017),
    (sym_list_comprehension, STATE 7017), (sym_dictionary_comprehension, STATE 7017),
    (sym_set_comprehension, STATE 7017), (sym_generator_expression, STATE 7017),
    (sym_parenthesized_expression, STATE 7017), (sym_conditional_expression, STATE 7969),
    (sym_concatenated_string, STATE 7017), (sym_string, STATE 6729), (sym_await, STATE 7017),
    (sym_identifier, ACTIONS 327), (anon_sym_import, ACTIONS 11), (anon_sym_from, ACTIONS 13),
    (anon_sym_LPAREN, ACTIONS 329), (anon_sym_STAR, ACTIONS 331), (anon_sym_print, ACTIONS 333),
    (anon_sym_comptime, ACTIONS 335), (anon_sym_assert, ACTIONS 23),
    (anon_sym___comptime_assert, ACTIONS 25), (anon_sym_return, ACTIONS 27),
    (anon_sym_del, ACTIONS 29), (anon_sym_raise, ACTIONS 31), (anon_sym_pass, ACTIONS 33),
    (anon_sym_break, ACTIONS 35), (anon_sym_continue, ACTIONS 37), (anon_sym_match, ACTIONS 337),
    (anon_sym_async, ACTIONS 339), (anon_sym_def, ACTIONS 341), (anon_sym_LBRACK, ACTIONS 343),
    (anon_sym_LBRACE, ACTIONS 61), (anon_sym_STAR_STAR, ACTIONS 345),
    (anon_sym_global, ACTIONS 63), (anon_sym_nonlocal, ACTIONS 65), (anon_sym_exec, ACTIONS 347),
    (anon_sym_type, ACTIONS 349), (anon_sym_mut, ACTIONS 339), (anon_sym_out, ACTIONS 339),
    (anon_sym_DASH, ACTIONS 79), (anon_sym_PLUS, ACTIONS 79), (anon_sym_ref, ACTIONS 81),
    (anon_sym_var, ACTIONS 81), (anon_sym_not, ACTIONS 83), (anon_sym_TILDE, ACTIONS 79),
    (anon_sym_lambda, ACTIONS 85), (anon_sym_yield, ACTIONS 87), (sym_ellipsis, ACTIONS 89),
    (anon_sym___mlir_type, ACTIONS 91), (sym_integer, ACTIONS 93), (sym_float, ACTIONS 89),
    (anon_sym_await, ACTIONS 351), (sym_true, ACTIONS 93), (sym_false, ACTIONS 93),
    (sym_none, ACTIONS 93), (sym_comment, ACTIONS 3), (sym_line_continuation, ACTIONS 3),
    (sym__newline, ACTIONS 605), (sym__indent, ACTIONS 607), (sym_string_start, ACTIONS 97)]"

definition parse_table_993 :: "(nat \<times> nat) list" where "parse_table_993 = [
    (sym__simple_statements, STATE 6289), (sym_import_statement, STATE 11814),
    (sym_future_import_statement, STATE 11814), (sym_import_from_statement, STATE 11814),
    (sym_print_statement, STATE 11814), (sym_assert_statement, STATE 11814),
    (sym_comptime_assert_statement, STATE 11814), (sym_expression_statement, STATE 11814),
    (sym_tuple_expression, STATE 12425), (sym_named_expression, STATE 7969),
    (sym__named_expression_lhs, STATE 12752), (sym_return_statement, STATE 11814),
    (sym_delete_statement, STATE 11814), (sym_raise_statement, STATE 11814),
    (sym_pass_statement, STATE 11814), (sym_break_statement, STATE 11814),
    (sym_continue_statement, STATE 11814), (sym_global_statement, STATE 11814),
    (sym_nonlocal_statement, STATE 11814), (sym_exec_statement, STATE 11814),
    (sym_type_alias_statement, STATE 11814), (sym_parameterized_alias_statement, STATE 11814),
    (sym_pattern, STATE 8086), (sym_tuple_pattern, STATE 8101), (sym_list_pattern, STATE 8101),
    (sym_list_splat_pattern, STATE 6795), (sym_as_pattern, STATE 7969),
    (sym_expression, STATE 9623), (sym_primary_expression, STATE 7326),
    (sym_comptime_expression, STATE 7017), (sym_transfer_expression, STATE 7017),
    (sym_not_operator, STATE 7969), (sym_boolean_operator, STATE 7969),
    (sym_binary_operator, STATE 7017), (sym_unary_operator, STATE 7017),
    (sym_comparison_operator, STATE 7969), (sym_lambda, STATE 7969),
    (sym_assignment, STATE 12425), (sym_augmented_assignment, STATE 12425),
    (sym_pattern_list, STATE 8578), (sym_yield, STATE 12425), (sym_attribute, STATE 6796),
    (sym_subscript, STATE 6797), (sym_call, STATE 6768), (sym_type, STATE 10130),
    (sym_called_type, STATE 9093), (sym_function_type, STATE 9093), (sym_splat_type, STATE 9093),
    (sym_generic_type, STATE 8287), (sym_union_type, STATE 9093),
    (sym_intersection_type, STATE 9093), (sym__intersection_operand, STATE 12294),
    (sym_constrained_type, STATE 9093), (sym_member_type, STATE 8165),
    (sym_mlir_type, STATE 7017), (sym_list, STATE 7017), (sym_set, STATE 7017),
    (sym_tuple, STATE 7017), (sym_dictionary, STATE 7017), (sym_struct_literal, STATE 7017),
    (sym_list_comprehension, STATE 7017), (sym_dictionary_comprehension, STATE 7017),
    (sym_set_comprehension, STATE 7017), (sym_generator_expression, STATE 7017),
    (sym_parenthesized_expression, STATE 7017), (sym_conditional_expression, STATE 7969),
    (sym_concatenated_string, STATE 7017), (sym_string, STATE 6729), (sym_await, STATE 7017),
    (sym_identifier, ACTIONS 327), (anon_sym_import, ACTIONS 11), (anon_sym_from, ACTIONS 13),
    (anon_sym_LPAREN, ACTIONS 329), (anon_sym_STAR, ACTIONS 331), (anon_sym_print, ACTIONS 333),
    (anon_sym_comptime, ACTIONS 335), (anon_sym_assert, ACTIONS 23),
    (anon_sym___comptime_assert, ACTIONS 25), (anon_sym_return, ACTIONS 27),
    (anon_sym_del, ACTIONS 29), (anon_sym_raise, ACTIONS 31), (anon_sym_pass, ACTIONS 33),
    (anon_sym_break, ACTIONS 35), (anon_sym_continue, ACTIONS 37), (anon_sym_match, ACTIONS 337),
    (anon_sym_async, ACTIONS 339), (anon_sym_def, ACTIONS 341), (anon_sym_LBRACK, ACTIONS 343),
    (anon_sym_LBRACE, ACTIONS 61), (anon_sym_STAR_STAR, ACTIONS 345),
    (anon_sym_global, ACTIONS 63), (anon_sym_nonlocal, ACTIONS 65), (anon_sym_exec, ACTIONS 347),
    (anon_sym_type, ACTIONS 349), (anon_sym_mut, ACTIONS 339), (anon_sym_out, ACTIONS 339),
    (anon_sym_DASH, ACTIONS 79), (anon_sym_PLUS, ACTIONS 79), (anon_sym_ref, ACTIONS 81),
    (anon_sym_var, ACTIONS 81), (anon_sym_not, ACTIONS 83), (anon_sym_TILDE, ACTIONS 79),
    (anon_sym_lambda, ACTIONS 85), (anon_sym_yield, ACTIONS 87), (sym_ellipsis, ACTIONS 89),
    (anon_sym___mlir_type, ACTIONS 91), (sym_integer, ACTIONS 93), (sym_float, ACTIONS 89),
    (anon_sym_await, ACTIONS 351), (sym_true, ACTIONS 93), (sym_false, ACTIONS 93),
    (sym_none, ACTIONS 93), (sym_comment, ACTIONS 3), (sym_line_continuation, ACTIONS 3),
    (sym__newline, ACTIONS 609), (sym__indent, ACTIONS 611), (sym_string_start, ACTIONS 97)]"

definition parse_table_994 :: "(nat \<times> nat) list" where "parse_table_994 = [
    (sym__simple_statements, STATE 5271), (sym_import_statement, STATE 11814),
    (sym_future_import_statement, STATE 11814), (sym_import_from_statement, STATE 11814),
    (sym_print_statement, STATE 11814), (sym_assert_statement, STATE 11814),
    (sym_comptime_assert_statement, STATE 11814), (sym_expression_statement, STATE 11814),
    (sym_tuple_expression, STATE 12425), (sym_named_expression, STATE 7969),
    (sym__named_expression_lhs, STATE 12752), (sym_return_statement, STATE 11814),
    (sym_delete_statement, STATE 11814), (sym_raise_statement, STATE 11814),
    (sym_pass_statement, STATE 11814), (sym_break_statement, STATE 11814),
    (sym_continue_statement, STATE 11814), (sym_global_statement, STATE 11814),
    (sym_nonlocal_statement, STATE 11814), (sym_exec_statement, STATE 11814),
    (sym_type_alias_statement, STATE 11814), (sym_parameterized_alias_statement, STATE 11814),
    (sym_pattern, STATE 8086), (sym_tuple_pattern, STATE 8101), (sym_list_pattern, STATE 8101),
    (sym_list_splat_pattern, STATE 6795), (sym_as_pattern, STATE 7969),
    (sym_expression, STATE 9623), (sym_primary_expression, STATE 7326),
    (sym_comptime_expression, STATE 7017), (sym_transfer_expression, STATE 7017),
    (sym_not_operator, STATE 7969), (sym_boolean_operator, STATE 7969),
    (sym_binary_operator, STATE 7017), (sym_unary_operator, STATE 7017),
    (sym_comparison_operator, STATE 7969), (sym_lambda, STATE 7969),
    (sym_assignment, STATE 12425), (sym_augmented_assignment, STATE 12425),
    (sym_pattern_list, STATE 8578), (sym_yield, STATE 12425), (sym_attribute, STATE 6796),
    (sym_subscript, STATE 6797), (sym_call, STATE 6768), (sym_type, STATE 10130),
    (sym_called_type, STATE 9093), (sym_function_type, STATE 9093), (sym_splat_type, STATE 9093),
    (sym_generic_type, STATE 8287), (sym_union_type, STATE 9093),
    (sym_intersection_type, STATE 9093), (sym__intersection_operand, STATE 12294),
    (sym_constrained_type, STATE 9093), (sym_member_type, STATE 8165),
    (sym_mlir_type, STATE 7017), (sym_list, STATE 7017), (sym_set, STATE 7017),
    (sym_tuple, STATE 7017), (sym_dictionary, STATE 7017), (sym_struct_literal, STATE 7017),
    (sym_list_comprehension, STATE 7017), (sym_dictionary_comprehension, STATE 7017),
    (sym_set_comprehension, STATE 7017), (sym_generator_expression, STATE 7017),
    (sym_parenthesized_expression, STATE 7017), (sym_conditional_expression, STATE 7969),
    (sym_concatenated_string, STATE 7017), (sym_string, STATE 6729), (sym_await, STATE 7017),
    (sym_identifier, ACTIONS 327), (anon_sym_import, ACTIONS 11), (anon_sym_from, ACTIONS 13),
    (anon_sym_LPAREN, ACTIONS 329), (anon_sym_STAR, ACTIONS 331), (anon_sym_print, ACTIONS 333),
    (anon_sym_comptime, ACTIONS 335), (anon_sym_assert, ACTIONS 23),
    (anon_sym___comptime_assert, ACTIONS 25), (anon_sym_return, ACTIONS 27),
    (anon_sym_del, ACTIONS 29), (anon_sym_raise, ACTIONS 31), (anon_sym_pass, ACTIONS 33),
    (anon_sym_break, ACTIONS 35), (anon_sym_continue, ACTIONS 37), (anon_sym_match, ACTIONS 337),
    (anon_sym_async, ACTIONS 339), (anon_sym_def, ACTIONS 341), (anon_sym_LBRACK, ACTIONS 343),
    (anon_sym_LBRACE, ACTIONS 61), (anon_sym_STAR_STAR, ACTIONS 345),
    (anon_sym_global, ACTIONS 63), (anon_sym_nonlocal, ACTIONS 65), (anon_sym_exec, ACTIONS 347),
    (anon_sym_type, ACTIONS 349), (anon_sym_mut, ACTIONS 339), (anon_sym_out, ACTIONS 339),
    (anon_sym_DASH, ACTIONS 79), (anon_sym_PLUS, ACTIONS 79), (anon_sym_ref, ACTIONS 81),
    (anon_sym_var, ACTIONS 81), (anon_sym_not, ACTIONS 83), (anon_sym_TILDE, ACTIONS 79),
    (anon_sym_lambda, ACTIONS 85), (anon_sym_yield, ACTIONS 87), (sym_ellipsis, ACTIONS 89),
    (anon_sym___mlir_type, ACTIONS 91), (sym_integer, ACTIONS 93), (sym_float, ACTIONS 89),
    (anon_sym_await, ACTIONS 351), (sym_true, ACTIONS 93), (sym_false, ACTIONS 93),
    (sym_none, ACTIONS 93), (sym_comment, ACTIONS 3), (sym_line_continuation, ACTIONS 3),
    (sym__newline, ACTIONS 613), (sym__indent, ACTIONS 615), (sym_string_start, ACTIONS 97)]"

definition parse_table_995 :: "(nat \<times> nat) list" where "parse_table_995 = [
    (sym__simple_statements, STATE 5287), (sym_import_statement, STATE 11814),
    (sym_future_import_statement, STATE 11814), (sym_import_from_statement, STATE 11814),
    (sym_print_statement, STATE 11814), (sym_assert_statement, STATE 11814),
    (sym_comptime_assert_statement, STATE 11814), (sym_expression_statement, STATE 11814),
    (sym_tuple_expression, STATE 12425), (sym_named_expression, STATE 7969),
    (sym__named_expression_lhs, STATE 12752), (sym_return_statement, STATE 11814),
    (sym_delete_statement, STATE 11814), (sym_raise_statement, STATE 11814),
    (sym_pass_statement, STATE 11814), (sym_break_statement, STATE 11814),
    (sym_continue_statement, STATE 11814), (sym_global_statement, STATE 11814),
    (sym_nonlocal_statement, STATE 11814), (sym_exec_statement, STATE 11814),
    (sym_type_alias_statement, STATE 11814), (sym_parameterized_alias_statement, STATE 11814),
    (sym_pattern, STATE 8086), (sym_tuple_pattern, STATE 8101), (sym_list_pattern, STATE 8101),
    (sym_list_splat_pattern, STATE 6795), (sym_as_pattern, STATE 7969),
    (sym_expression, STATE 9623), (sym_primary_expression, STATE 7326),
    (sym_comptime_expression, STATE 7017), (sym_transfer_expression, STATE 7017),
    (sym_not_operator, STATE 7969), (sym_boolean_operator, STATE 7969),
    (sym_binary_operator, STATE 7017), (sym_unary_operator, STATE 7017),
    (sym_comparison_operator, STATE 7969), (sym_lambda, STATE 7969),
    (sym_assignment, STATE 12425), (sym_augmented_assignment, STATE 12425),
    (sym_pattern_list, STATE 8578), (sym_yield, STATE 12425), (sym_attribute, STATE 6796),
    (sym_subscript, STATE 6797), (sym_call, STATE 6768), (sym_type, STATE 10130),
    (sym_called_type, STATE 9093), (sym_function_type, STATE 9093), (sym_splat_type, STATE 9093),
    (sym_generic_type, STATE 8287), (sym_union_type, STATE 9093),
    (sym_intersection_type, STATE 9093), (sym__intersection_operand, STATE 12294),
    (sym_constrained_type, STATE 9093), (sym_member_type, STATE 8165),
    (sym_mlir_type, STATE 7017), (sym_list, STATE 7017), (sym_set, STATE 7017),
    (sym_tuple, STATE 7017), (sym_dictionary, STATE 7017), (sym_struct_literal, STATE 7017),
    (sym_list_comprehension, STATE 7017), (sym_dictionary_comprehension, STATE 7017),
    (sym_set_comprehension, STATE 7017), (sym_generator_expression, STATE 7017),
    (sym_parenthesized_expression, STATE 7017), (sym_conditional_expression, STATE 7969),
    (sym_concatenated_string, STATE 7017), (sym_string, STATE 6729), (sym_await, STATE 7017),
    (sym_identifier, ACTIONS 327), (anon_sym_import, ACTIONS 11), (anon_sym_from, ACTIONS 13),
    (anon_sym_LPAREN, ACTIONS 329), (anon_sym_STAR, ACTIONS 331), (anon_sym_print, ACTIONS 333),
    (anon_sym_comptime, ACTIONS 335), (anon_sym_assert, ACTIONS 23),
    (anon_sym___comptime_assert, ACTIONS 25), (anon_sym_return, ACTIONS 27),
    (anon_sym_del, ACTIONS 29), (anon_sym_raise, ACTIONS 31), (anon_sym_pass, ACTIONS 33),
    (anon_sym_break, ACTIONS 35), (anon_sym_continue, ACTIONS 37), (anon_sym_match, ACTIONS 337),
    (anon_sym_async, ACTIONS 339), (anon_sym_def, ACTIONS 341), (anon_sym_LBRACK, ACTIONS 343),
    (anon_sym_LBRACE, ACTIONS 61), (anon_sym_STAR_STAR, ACTIONS 345),
    (anon_sym_global, ACTIONS 63), (anon_sym_nonlocal, ACTIONS 65), (anon_sym_exec, ACTIONS 347),
    (anon_sym_type, ACTIONS 349), (anon_sym_mut, ACTIONS 339), (anon_sym_out, ACTIONS 339),
    (anon_sym_DASH, ACTIONS 79), (anon_sym_PLUS, ACTIONS 79), (anon_sym_ref, ACTIONS 81),
    (anon_sym_var, ACTIONS 81), (anon_sym_not, ACTIONS 83), (anon_sym_TILDE, ACTIONS 79),
    (anon_sym_lambda, ACTIONS 85), (anon_sym_yield, ACTIONS 87), (sym_ellipsis, ACTIONS 89),
    (anon_sym___mlir_type, ACTIONS 91), (sym_integer, ACTIONS 93), (sym_float, ACTIONS 89),
    (anon_sym_await, ACTIONS 351), (sym_true, ACTIONS 93), (sym_false, ACTIONS 93),
    (sym_none, ACTIONS 93), (sym_comment, ACTIONS 3), (sym_line_continuation, ACTIONS 3),
    (sym__newline, ACTIONS 617), (sym__indent, ACTIONS 619), (sym_string_start, ACTIONS 97)]"

definition parse_table_996 :: "(nat \<times> nat) list" where "parse_table_996 = [
    (sym__simple_statements, STATE 6293), (sym_import_statement, STATE 11814),
    (sym_future_import_statement, STATE 11814), (sym_import_from_statement, STATE 11814),
    (sym_print_statement, STATE 11814), (sym_assert_statement, STATE 11814),
    (sym_comptime_assert_statement, STATE 11814), (sym_expression_statement, STATE 11814),
    (sym_tuple_expression, STATE 12425), (sym_named_expression, STATE 7969),
    (sym__named_expression_lhs, STATE 12752), (sym_return_statement, STATE 11814),
    (sym_delete_statement, STATE 11814), (sym_raise_statement, STATE 11814),
    (sym_pass_statement, STATE 11814), (sym_break_statement, STATE 11814),
    (sym_continue_statement, STATE 11814), (sym_global_statement, STATE 11814),
    (sym_nonlocal_statement, STATE 11814), (sym_exec_statement, STATE 11814),
    (sym_type_alias_statement, STATE 11814), (sym_parameterized_alias_statement, STATE 11814),
    (sym_pattern, STATE 8086), (sym_tuple_pattern, STATE 8101), (sym_list_pattern, STATE 8101),
    (sym_list_splat_pattern, STATE 6795), (sym_as_pattern, STATE 7969),
    (sym_expression, STATE 9623), (sym_primary_expression, STATE 7326),
    (sym_comptime_expression, STATE 7017), (sym_transfer_expression, STATE 7017),
    (sym_not_operator, STATE 7969), (sym_boolean_operator, STATE 7969),
    (sym_binary_operator, STATE 7017), (sym_unary_operator, STATE 7017),
    (sym_comparison_operator, STATE 7969), (sym_lambda, STATE 7969),
    (sym_assignment, STATE 12425), (sym_augmented_assignment, STATE 12425),
    (sym_pattern_list, STATE 8578), (sym_yield, STATE 12425), (sym_attribute, STATE 6796),
    (sym_subscript, STATE 6797), (sym_call, STATE 6768), (sym_type, STATE 10130),
    (sym_called_type, STATE 9093), (sym_function_type, STATE 9093), (sym_splat_type, STATE 9093),
    (sym_generic_type, STATE 8287), (sym_union_type, STATE 9093),
    (sym_intersection_type, STATE 9093), (sym__intersection_operand, STATE 12294),
    (sym_constrained_type, STATE 9093), (sym_member_type, STATE 8165),
    (sym_mlir_type, STATE 7017), (sym_list, STATE 7017), (sym_set, STATE 7017),
    (sym_tuple, STATE 7017), (sym_dictionary, STATE 7017), (sym_struct_literal, STATE 7017),
    (sym_list_comprehension, STATE 7017), (sym_dictionary_comprehension, STATE 7017),
    (sym_set_comprehension, STATE 7017), (sym_generator_expression, STATE 7017),
    (sym_parenthesized_expression, STATE 7017), (sym_conditional_expression, STATE 7969),
    (sym_concatenated_string, STATE 7017), (sym_string, STATE 6729), (sym_await, STATE 7017),
    (sym_identifier, ACTIONS 327), (anon_sym_import, ACTIONS 11), (anon_sym_from, ACTIONS 13),
    (anon_sym_LPAREN, ACTIONS 329), (anon_sym_STAR, ACTIONS 331), (anon_sym_print, ACTIONS 333),
    (anon_sym_comptime, ACTIONS 335), (anon_sym_assert, ACTIONS 23),
    (anon_sym___comptime_assert, ACTIONS 25), (anon_sym_return, ACTIONS 27),
    (anon_sym_del, ACTIONS 29), (anon_sym_raise, ACTIONS 31), (anon_sym_pass, ACTIONS 33),
    (anon_sym_break, ACTIONS 35), (anon_sym_continue, ACTIONS 37), (anon_sym_match, ACTIONS 337),
    (anon_sym_async, ACTIONS 339), (anon_sym_def, ACTIONS 341), (anon_sym_LBRACK, ACTIONS 343),
    (anon_sym_LBRACE, ACTIONS 61), (anon_sym_STAR_STAR, ACTIONS 345),
    (anon_sym_global, ACTIONS 63), (anon_sym_nonlocal, ACTIONS 65), (anon_sym_exec, ACTIONS 347),
    (anon_sym_type, ACTIONS 349), (anon_sym_mut, ACTIONS 339), (anon_sym_out, ACTIONS 339),
    (anon_sym_DASH, ACTIONS 79), (anon_sym_PLUS, ACTIONS 79), (anon_sym_ref, ACTIONS 81),
    (anon_sym_var, ACTIONS 81), (anon_sym_not, ACTIONS 83), (anon_sym_TILDE, ACTIONS 79),
    (anon_sym_lambda, ACTIONS 85), (anon_sym_yield, ACTIONS 87), (sym_ellipsis, ACTIONS 89),
    (anon_sym___mlir_type, ACTIONS 91), (sym_integer, ACTIONS 93), (sym_float, ACTIONS 89),
    (anon_sym_await, ACTIONS 351), (sym_true, ACTIONS 93), (sym_false, ACTIONS 93),
    (sym_none, ACTIONS 93), (sym_comment, ACTIONS 3), (sym_line_continuation, ACTIONS 3),
    (sym__newline, ACTIONS 621), (sym__indent, ACTIONS 623), (sym_string_start, ACTIONS 97)]"

definition parse_table_997 :: "(nat \<times> nat) list" where "parse_table_997 = [
    (sym__simple_statements, STATE 5042), (sym_import_statement, STATE 12239),
    (sym_future_import_statement, STATE 12239), (sym_import_from_statement, STATE 12239),
    (sym_print_statement, STATE 12239), (sym_assert_statement, STATE 12239),
    (sym_comptime_assert_statement, STATE 12239), (sym_expression_statement, STATE 12239),
    (sym_tuple_expression, STATE 12425), (sym_named_expression, STATE 7969),
    (sym__named_expression_lhs, STATE 12752), (sym_return_statement, STATE 12239),
    (sym_delete_statement, STATE 12239), (sym_raise_statement, STATE 12239),
    (sym_pass_statement, STATE 12239), (sym_break_statement, STATE 12239),
    (sym_continue_statement, STATE 12239), (sym_global_statement, STATE 12239),
    (sym_nonlocal_statement, STATE 12239), (sym_exec_statement, STATE 12239),
    (sym_type_alias_statement, STATE 12239), (sym_parameterized_alias_statement, STATE 12239),
    (sym_pattern, STATE 8086), (sym_tuple_pattern, STATE 8101), (sym_list_pattern, STATE 8101),
    (sym_list_splat_pattern, STATE 6795), (sym_as_pattern, STATE 7969),
    (sym_expression, STATE 9623), (sym_primary_expression, STATE 7326),
    (sym_comptime_expression, STATE 7017), (sym_transfer_expression, STATE 7017),
    (sym_not_operator, STATE 7969), (sym_boolean_operator, STATE 7969),
    (sym_binary_operator, STATE 7017), (sym_unary_operator, STATE 7017),
    (sym_comparison_operator, STATE 7969), (sym_lambda, STATE 7969),
    (sym_assignment, STATE 12425), (sym_augmented_assignment, STATE 12425),
    (sym_pattern_list, STATE 8578), (sym_yield, STATE 12425), (sym_attribute, STATE 6796),
    (sym_subscript, STATE 6797), (sym_call, STATE 6768), (sym_type, STATE 10130),
    (sym_called_type, STATE 9093), (sym_function_type, STATE 9093), (sym_splat_type, STATE 9093),
    (sym_generic_type, STATE 8287), (sym_union_type, STATE 9093),
    (sym_intersection_type, STATE 9093), (sym__intersection_operand, STATE 12294),
    (sym_constrained_type, STATE 9093), (sym_member_type, STATE 8165),
    (sym_mlir_type, STATE 7017), (sym_list, STATE 7017), (sym_set, STATE 7017),
    (sym_tuple, STATE 7017), (sym_dictionary, STATE 7017), (sym_struct_literal, STATE 7017),
    (sym_list_comprehension, STATE 7017), (sym_dictionary_comprehension, STATE 7017),
    (sym_set_comprehension, STATE 7017), (sym_generator_expression, STATE 7017),
    (sym_parenthesized_expression, STATE 7017), (sym_conditional_expression, STATE 7969),
    (sym_concatenated_string, STATE 7017), (sym_string, STATE 6729), (sym_await, STATE 7017),
    (sym_identifier, ACTIONS 327), (anon_sym_import, ACTIONS 11), (anon_sym_from, ACTIONS 13),
    (anon_sym_LPAREN, ACTIONS 329), (anon_sym_STAR, ACTIONS 331), (anon_sym_print, ACTIONS 333),
    (anon_sym_comptime, ACTIONS 335), (anon_sym_assert, ACTIONS 23),
    (anon_sym___comptime_assert, ACTIONS 25), (anon_sym_return, ACTIONS 27),
    (anon_sym_del, ACTIONS 29), (anon_sym_raise, ACTIONS 31), (anon_sym_pass, ACTIONS 33),
    (anon_sym_break, ACTIONS 35), (anon_sym_continue, ACTIONS 37), (anon_sym_match, ACTIONS 337),
    (anon_sym_async, ACTIONS 339), (anon_sym_def, ACTIONS 341), (anon_sym_LBRACK, ACTIONS 343),
    (anon_sym_LBRACE, ACTIONS 61), (anon_sym_STAR_STAR, ACTIONS 345),
    (anon_sym_global, ACTIONS 63), (anon_sym_nonlocal, ACTIONS 65), (anon_sym_exec, ACTIONS 347),
    (anon_sym_type, ACTIONS 349), (anon_sym_mut, ACTIONS 339), (anon_sym_out, ACTIONS 339),
    (anon_sym_DASH, ACTIONS 79), (anon_sym_PLUS, ACTIONS 79), (anon_sym_ref, ACTIONS 81),
    (anon_sym_var, ACTIONS 81), (anon_sym_not, ACTIONS 83), (anon_sym_TILDE, ACTIONS 79),
    (anon_sym_lambda, ACTIONS 85), (anon_sym_yield, ACTIONS 87), (sym_ellipsis, ACTIONS 89),
    (anon_sym___mlir_type, ACTIONS 91), (sym_integer, ACTIONS 93), (sym_float, ACTIONS 89),
    (anon_sym_await, ACTIONS 351), (sym_true, ACTIONS 93), (sym_false, ACTIONS 93),
    (sym_none, ACTIONS 93), (sym_comment, ACTIONS 3), (sym_line_continuation, ACTIONS 3),
    (sym__newline, ACTIONS 625), (sym__indent, ACTIONS 627), (sym_string_start, ACTIONS 97)]"

definition parse_table_998 :: "(nat \<times> nat) list" where "parse_table_998 = [
    (sym__simple_statements, STATE 5329), (sym_import_statement, STATE 11814),
    (sym_future_import_statement, STATE 11814), (sym_import_from_statement, STATE 11814),
    (sym_print_statement, STATE 11814), (sym_assert_statement, STATE 11814),
    (sym_comptime_assert_statement, STATE 11814), (sym_expression_statement, STATE 11814),
    (sym_tuple_expression, STATE 12425), (sym_named_expression, STATE 7969),
    (sym__named_expression_lhs, STATE 12752), (sym_return_statement, STATE 11814),
    (sym_delete_statement, STATE 11814), (sym_raise_statement, STATE 11814),
    (sym_pass_statement, STATE 11814), (sym_break_statement, STATE 11814),
    (sym_continue_statement, STATE 11814), (sym_global_statement, STATE 11814),
    (sym_nonlocal_statement, STATE 11814), (sym_exec_statement, STATE 11814),
    (sym_type_alias_statement, STATE 11814), (sym_parameterized_alias_statement, STATE 11814),
    (sym_pattern, STATE 8086), (sym_tuple_pattern, STATE 8101), (sym_list_pattern, STATE 8101),
    (sym_list_splat_pattern, STATE 6795), (sym_as_pattern, STATE 7969),
    (sym_expression, STATE 9623), (sym_primary_expression, STATE 7326),
    (sym_comptime_expression, STATE 7017), (sym_transfer_expression, STATE 7017),
    (sym_not_operator, STATE 7969), (sym_boolean_operator, STATE 7969),
    (sym_binary_operator, STATE 7017), (sym_unary_operator, STATE 7017),
    (sym_comparison_operator, STATE 7969), (sym_lambda, STATE 7969),
    (sym_assignment, STATE 12425), (sym_augmented_assignment, STATE 12425),
    (sym_pattern_list, STATE 8578), (sym_yield, STATE 12425), (sym_attribute, STATE 6796),
    (sym_subscript, STATE 6797), (sym_call, STATE 6768), (sym_type, STATE 10130),
    (sym_called_type, STATE 9093), (sym_function_type, STATE 9093), (sym_splat_type, STATE 9093),
    (sym_generic_type, STATE 8287), (sym_union_type, STATE 9093),
    (sym_intersection_type, STATE 9093), (sym__intersection_operand, STATE 12294),
    (sym_constrained_type, STATE 9093), (sym_member_type, STATE 8165),
    (sym_mlir_type, STATE 7017), (sym_list, STATE 7017), (sym_set, STATE 7017),
    (sym_tuple, STATE 7017), (sym_dictionary, STATE 7017), (sym_struct_literal, STATE 7017),
    (sym_list_comprehension, STATE 7017), (sym_dictionary_comprehension, STATE 7017),
    (sym_set_comprehension, STATE 7017), (sym_generator_expression, STATE 7017),
    (sym_parenthesized_expression, STATE 7017), (sym_conditional_expression, STATE 7969),
    (sym_concatenated_string, STATE 7017), (sym_string, STATE 6729), (sym_await, STATE 7017),
    (sym_identifier, ACTIONS 327), (anon_sym_import, ACTIONS 11), (anon_sym_from, ACTIONS 13),
    (anon_sym_LPAREN, ACTIONS 329), (anon_sym_STAR, ACTIONS 331), (anon_sym_print, ACTIONS 333),
    (anon_sym_comptime, ACTIONS 335), (anon_sym_assert, ACTIONS 23),
    (anon_sym___comptime_assert, ACTIONS 25), (anon_sym_return, ACTIONS 27),
    (anon_sym_del, ACTIONS 29), (anon_sym_raise, ACTIONS 31), (anon_sym_pass, ACTIONS 33),
    (anon_sym_break, ACTIONS 35), (anon_sym_continue, ACTIONS 37), (anon_sym_match, ACTIONS 337),
    (anon_sym_async, ACTIONS 339), (anon_sym_def, ACTIONS 341), (anon_sym_LBRACK, ACTIONS 343),
    (anon_sym_LBRACE, ACTIONS 61), (anon_sym_STAR_STAR, ACTIONS 345),
    (anon_sym_global, ACTIONS 63), (anon_sym_nonlocal, ACTIONS 65), (anon_sym_exec, ACTIONS 347),
    (anon_sym_type, ACTIONS 349), (anon_sym_mut, ACTIONS 339), (anon_sym_out, ACTIONS 339),
    (anon_sym_DASH, ACTIONS 79), (anon_sym_PLUS, ACTIONS 79), (anon_sym_ref, ACTIONS 81),
    (anon_sym_var, ACTIONS 81), (anon_sym_not, ACTIONS 83), (anon_sym_TILDE, ACTIONS 79),
    (anon_sym_lambda, ACTIONS 85), (anon_sym_yield, ACTIONS 87), (sym_ellipsis, ACTIONS 89),
    (anon_sym___mlir_type, ACTIONS 91), (sym_integer, ACTIONS 93), (sym_float, ACTIONS 89),
    (anon_sym_await, ACTIONS 351), (sym_true, ACTIONS 93), (sym_false, ACTIONS 93),
    (sym_none, ACTIONS 93), (sym_comment, ACTIONS 3), (sym_line_continuation, ACTIONS 3),
    (sym__newline, ACTIONS 629), (sym__indent, ACTIONS 631), (sym_string_start, ACTIONS 97)]"

definition parse_table_999 :: "(nat \<times> nat) list" where "parse_table_999 = [
    (sym__simple_statements, STATE 6299), (sym_import_statement, STATE 11814),
    (sym_future_import_statement, STATE 11814), (sym_import_from_statement, STATE 11814),
    (sym_print_statement, STATE 11814), (sym_assert_statement, STATE 11814),
    (sym_comptime_assert_statement, STATE 11814), (sym_expression_statement, STATE 11814),
    (sym_tuple_expression, STATE 12425), (sym_named_expression, STATE 7969),
    (sym__named_expression_lhs, STATE 12752), (sym_return_statement, STATE 11814),
    (sym_delete_statement, STATE 11814), (sym_raise_statement, STATE 11814),
    (sym_pass_statement, STATE 11814), (sym_break_statement, STATE 11814),
    (sym_continue_statement, STATE 11814), (sym_global_statement, STATE 11814),
    (sym_nonlocal_statement, STATE 11814), (sym_exec_statement, STATE 11814),
    (sym_type_alias_statement, STATE 11814), (sym_parameterized_alias_statement, STATE 11814),
    (sym_pattern, STATE 8086), (sym_tuple_pattern, STATE 8101), (sym_list_pattern, STATE 8101),
    (sym_list_splat_pattern, STATE 6795), (sym_as_pattern, STATE 7969),
    (sym_expression, STATE 9623), (sym_primary_expression, STATE 7326),
    (sym_comptime_expression, STATE 7017), (sym_transfer_expression, STATE 7017),
    (sym_not_operator, STATE 7969), (sym_boolean_operator, STATE 7969),
    (sym_binary_operator, STATE 7017), (sym_unary_operator, STATE 7017),
    (sym_comparison_operator, STATE 7969), (sym_lambda, STATE 7969),
    (sym_assignment, STATE 12425), (sym_augmented_assignment, STATE 12425),
    (sym_pattern_list, STATE 8578), (sym_yield, STATE 12425), (sym_attribute, STATE 6796),
    (sym_subscript, STATE 6797), (sym_call, STATE 6768), (sym_type, STATE 10130),
    (sym_called_type, STATE 9093), (sym_function_type, STATE 9093), (sym_splat_type, STATE 9093),
    (sym_generic_type, STATE 8287), (sym_union_type, STATE 9093),
    (sym_intersection_type, STATE 9093), (sym__intersection_operand, STATE 12294),
    (sym_constrained_type, STATE 9093), (sym_member_type, STATE 8165),
    (sym_mlir_type, STATE 7017), (sym_list, STATE 7017), (sym_set, STATE 7017),
    (sym_tuple, STATE 7017), (sym_dictionary, STATE 7017), (sym_struct_literal, STATE 7017),
    (sym_list_comprehension, STATE 7017), (sym_dictionary_comprehension, STATE 7017),
    (sym_set_comprehension, STATE 7017), (sym_generator_expression, STATE 7017),
    (sym_parenthesized_expression, STATE 7017), (sym_conditional_expression, STATE 7969),
    (sym_concatenated_string, STATE 7017), (sym_string, STATE 6729), (sym_await, STATE 7017),
    (sym_identifier, ACTIONS 327), (anon_sym_import, ACTIONS 11), (anon_sym_from, ACTIONS 13),
    (anon_sym_LPAREN, ACTIONS 329), (anon_sym_STAR, ACTIONS 331), (anon_sym_print, ACTIONS 333),
    (anon_sym_comptime, ACTIONS 335), (anon_sym_assert, ACTIONS 23),
    (anon_sym___comptime_assert, ACTIONS 25), (anon_sym_return, ACTIONS 27),
    (anon_sym_del, ACTIONS 29), (anon_sym_raise, ACTIONS 31), (anon_sym_pass, ACTIONS 33),
    (anon_sym_break, ACTIONS 35), (anon_sym_continue, ACTIONS 37), (anon_sym_match, ACTIONS 337),
    (anon_sym_async, ACTIONS 339), (anon_sym_def, ACTIONS 341), (anon_sym_LBRACK, ACTIONS 343),
    (anon_sym_LBRACE, ACTIONS 61), (anon_sym_STAR_STAR, ACTIONS 345),
    (anon_sym_global, ACTIONS 63), (anon_sym_nonlocal, ACTIONS 65), (anon_sym_exec, ACTIONS 347),
    (anon_sym_type, ACTIONS 349), (anon_sym_mut, ACTIONS 339), (anon_sym_out, ACTIONS 339),
    (anon_sym_DASH, ACTIONS 79), (anon_sym_PLUS, ACTIONS 79), (anon_sym_ref, ACTIONS 81),
    (anon_sym_var, ACTIONS 81), (anon_sym_not, ACTIONS 83), (anon_sym_TILDE, ACTIONS 79),
    (anon_sym_lambda, ACTIONS 85), (anon_sym_yield, ACTIONS 87), (sym_ellipsis, ACTIONS 89),
    (anon_sym___mlir_type, ACTIONS 91), (sym_integer, ACTIONS 93), (sym_float, ACTIONS 89),
    (anon_sym_await, ACTIONS 351), (sym_true, ACTIONS 93), (sym_false, ACTIONS 93),
    (sym_none, ACTIONS 93), (sym_comment, ACTIONS 3), (sym_line_continuation, ACTIONS 3),
    (sym__newline, ACTIONS 633), (sym__indent, ACTIONS 635), (sym_string_start, ACTIONS 97)]"

definition parse_table_1000 :: "(nat \<times> nat) list" where "parse_table_1000 = [
    (sym__simple_statements, STATE 5292), (sym_import_statement, STATE 12239),
    (sym_future_import_statement, STATE 12239), (sym_import_from_statement, STATE 12239),
    (sym_print_statement, STATE 12239), (sym_assert_statement, STATE 12239),
    (sym_comptime_assert_statement, STATE 12239), (sym_expression_statement, STATE 12239),
    (sym_tuple_expression, STATE 12425), (sym_named_expression, STATE 7969),
    (sym__named_expression_lhs, STATE 12752), (sym_return_statement, STATE 12239),
    (sym_delete_statement, STATE 12239), (sym_raise_statement, STATE 12239),
    (sym_pass_statement, STATE 12239), (sym_break_statement, STATE 12239),
    (sym_continue_statement, STATE 12239), (sym_global_statement, STATE 12239),
    (sym_nonlocal_statement, STATE 12239), (sym_exec_statement, STATE 12239),
    (sym_type_alias_statement, STATE 12239), (sym_parameterized_alias_statement, STATE 12239),
    (sym_pattern, STATE 8086), (sym_tuple_pattern, STATE 8101), (sym_list_pattern, STATE 8101),
    (sym_list_splat_pattern, STATE 6795), (sym_as_pattern, STATE 7969),
    (sym_expression, STATE 9623), (sym_primary_expression, STATE 7326),
    (sym_comptime_expression, STATE 7017), (sym_transfer_expression, STATE 7017),
    (sym_not_operator, STATE 7969), (sym_boolean_operator, STATE 7969),
    (sym_binary_operator, STATE 7017), (sym_unary_operator, STATE 7017),
    (sym_comparison_operator, STATE 7969), (sym_lambda, STATE 7969),
    (sym_assignment, STATE 12425), (sym_augmented_assignment, STATE 12425),
    (sym_pattern_list, STATE 8578), (sym_yield, STATE 12425), (sym_attribute, STATE 6796),
    (sym_subscript, STATE 6797), (sym_call, STATE 6768), (sym_type, STATE 10130),
    (sym_called_type, STATE 9093), (sym_function_type, STATE 9093), (sym_splat_type, STATE 9093),
    (sym_generic_type, STATE 8287), (sym_union_type, STATE 9093),
    (sym_intersection_type, STATE 9093), (sym__intersection_operand, STATE 12294),
    (sym_constrained_type, STATE 9093), (sym_member_type, STATE 8165),
    (sym_mlir_type, STATE 7017), (sym_list, STATE 7017), (sym_set, STATE 7017),
    (sym_tuple, STATE 7017), (sym_dictionary, STATE 7017), (sym_struct_literal, STATE 7017),
    (sym_list_comprehension, STATE 7017), (sym_dictionary_comprehension, STATE 7017),
    (sym_set_comprehension, STATE 7017), (sym_generator_expression, STATE 7017),
    (sym_parenthesized_expression, STATE 7017), (sym_conditional_expression, STATE 7969),
    (sym_concatenated_string, STATE 7017), (sym_string, STATE 6729), (sym_await, STATE 7017),
    (sym_identifier, ACTIONS 327), (anon_sym_import, ACTIONS 11), (anon_sym_from, ACTIONS 13),
    (anon_sym_LPAREN, ACTIONS 329), (anon_sym_STAR, ACTIONS 331), (anon_sym_print, ACTIONS 333),
    (anon_sym_comptime, ACTIONS 335), (anon_sym_assert, ACTIONS 23),
    (anon_sym___comptime_assert, ACTIONS 25), (anon_sym_return, ACTIONS 27),
    (anon_sym_del, ACTIONS 29), (anon_sym_raise, ACTIONS 31), (anon_sym_pass, ACTIONS 33),
    (anon_sym_break, ACTIONS 35), (anon_sym_continue, ACTIONS 37), (anon_sym_match, ACTIONS 337),
    (anon_sym_async, ACTIONS 339), (anon_sym_def, ACTIONS 341), (anon_sym_LBRACK, ACTIONS 343),
    (anon_sym_LBRACE, ACTIONS 61), (anon_sym_STAR_STAR, ACTIONS 345),
    (anon_sym_global, ACTIONS 63), (anon_sym_nonlocal, ACTIONS 65), (anon_sym_exec, ACTIONS 347),
    (anon_sym_type, ACTIONS 349), (anon_sym_mut, ACTIONS 339), (anon_sym_out, ACTIONS 339),
    (anon_sym_DASH, ACTIONS 79), (anon_sym_PLUS, ACTIONS 79), (anon_sym_ref, ACTIONS 81),
    (anon_sym_var, ACTIONS 81), (anon_sym_not, ACTIONS 83), (anon_sym_TILDE, ACTIONS 79),
    (anon_sym_lambda, ACTIONS 85), (anon_sym_yield, ACTIONS 87), (sym_ellipsis, ACTIONS 89),
    (anon_sym___mlir_type, ACTIONS 91), (sym_integer, ACTIONS 93), (sym_float, ACTIONS 89),
    (anon_sym_await, ACTIONS 351), (sym_true, ACTIONS 93), (sym_false, ACTIONS 93),
    (sym_none, ACTIONS 93), (sym_comment, ACTIONS 3), (sym_line_continuation, ACTIONS 3),
    (sym__newline, ACTIONS 637), (sym__indent, ACTIONS 639), (sym_string_start, ACTIONS 97)]"

definition parse_table_1001 :: "(nat \<times> nat) list" where "parse_table_1001 = [
    (sym__simple_statements, STATE 5515), (sym_import_statement, STATE 12239),
    (sym_future_import_statement, STATE 12239), (sym_import_from_statement, STATE 12239),
    (sym_print_statement, STATE 12239), (sym_assert_statement, STATE 12239),
    (sym_comptime_assert_statement, STATE 12239), (sym_expression_statement, STATE 12239),
    (sym_tuple_expression, STATE 12425), (sym_named_expression, STATE 7969),
    (sym__named_expression_lhs, STATE 12752), (sym_return_statement, STATE 12239),
    (sym_delete_statement, STATE 12239), (sym_raise_statement, STATE 12239),
    (sym_pass_statement, STATE 12239), (sym_break_statement, STATE 12239),
    (sym_continue_statement, STATE 12239), (sym_global_statement, STATE 12239),
    (sym_nonlocal_statement, STATE 12239), (sym_exec_statement, STATE 12239),
    (sym_type_alias_statement, STATE 12239), (sym_parameterized_alias_statement, STATE 12239),
    (sym_pattern, STATE 8086), (sym_tuple_pattern, STATE 8101), (sym_list_pattern, STATE 8101),
    (sym_list_splat_pattern, STATE 6795), (sym_as_pattern, STATE 7969),
    (sym_expression, STATE 9623), (sym_primary_expression, STATE 7326),
    (sym_comptime_expression, STATE 7017), (sym_transfer_expression, STATE 7017),
    (sym_not_operator, STATE 7969), (sym_boolean_operator, STATE 7969),
    (sym_binary_operator, STATE 7017), (sym_unary_operator, STATE 7017),
    (sym_comparison_operator, STATE 7969), (sym_lambda, STATE 7969),
    (sym_assignment, STATE 12425), (sym_augmented_assignment, STATE 12425),
    (sym_pattern_list, STATE 8578), (sym_yield, STATE 12425), (sym_attribute, STATE 6796),
    (sym_subscript, STATE 6797), (sym_call, STATE 6768), (sym_type, STATE 10130),
    (sym_called_type, STATE 9093), (sym_function_type, STATE 9093), (sym_splat_type, STATE 9093),
    (sym_generic_type, STATE 8287), (sym_union_type, STATE 9093),
    (sym_intersection_type, STATE 9093), (sym__intersection_operand, STATE 12294),
    (sym_constrained_type, STATE 9093), (sym_member_type, STATE 8165),
    (sym_mlir_type, STATE 7017), (sym_list, STATE 7017), (sym_set, STATE 7017),
    (sym_tuple, STATE 7017), (sym_dictionary, STATE 7017), (sym_struct_literal, STATE 7017),
    (sym_list_comprehension, STATE 7017), (sym_dictionary_comprehension, STATE 7017),
    (sym_set_comprehension, STATE 7017), (sym_generator_expression, STATE 7017),
    (sym_parenthesized_expression, STATE 7017), (sym_conditional_expression, STATE 7969),
    (sym_concatenated_string, STATE 7017), (sym_string, STATE 6729), (sym_await, STATE 7017),
    (sym_identifier, ACTIONS 327), (anon_sym_import, ACTIONS 11), (anon_sym_from, ACTIONS 13),
    (anon_sym_LPAREN, ACTIONS 329), (anon_sym_STAR, ACTIONS 331), (anon_sym_print, ACTIONS 333),
    (anon_sym_comptime, ACTIONS 335), (anon_sym_assert, ACTIONS 23),
    (anon_sym___comptime_assert, ACTIONS 25), (anon_sym_return, ACTIONS 27),
    (anon_sym_del, ACTIONS 29), (anon_sym_raise, ACTIONS 31), (anon_sym_pass, ACTIONS 33),
    (anon_sym_break, ACTIONS 35), (anon_sym_continue, ACTIONS 37), (anon_sym_match, ACTIONS 337),
    (anon_sym_async, ACTIONS 339), (anon_sym_def, ACTIONS 341), (anon_sym_LBRACK, ACTIONS 343),
    (anon_sym_LBRACE, ACTIONS 61), (anon_sym_STAR_STAR, ACTIONS 345),
    (anon_sym_global, ACTIONS 63), (anon_sym_nonlocal, ACTIONS 65), (anon_sym_exec, ACTIONS 347),
    (anon_sym_type, ACTIONS 349), (anon_sym_mut, ACTIONS 339), (anon_sym_out, ACTIONS 339),
    (anon_sym_DASH, ACTIONS 79), (anon_sym_PLUS, ACTIONS 79), (anon_sym_ref, ACTIONS 81),
    (anon_sym_var, ACTIONS 81), (anon_sym_not, ACTIONS 83), (anon_sym_TILDE, ACTIONS 79),
    (anon_sym_lambda, ACTIONS 85), (anon_sym_yield, ACTIONS 87), (sym_ellipsis, ACTIONS 89),
    (anon_sym___mlir_type, ACTIONS 91), (sym_integer, ACTIONS 93), (sym_float, ACTIONS 89),
    (anon_sym_await, ACTIONS 351), (sym_true, ACTIONS 93), (sym_false, ACTIONS 93),
    (sym_none, ACTIONS 93), (sym_comment, ACTIONS 3), (sym_line_continuation, ACTIONS 3),
    (sym__newline, ACTIONS 641), (sym__indent, ACTIONS 643), (sym_string_start, ACTIONS 97)]"

definition parse_table_1002 :: "(nat \<times> nat) list" where "parse_table_1002 = [
    (sym__simple_statements, STATE 6307), (sym_import_statement, STATE 11814),
    (sym_future_import_statement, STATE 11814), (sym_import_from_statement, STATE 11814),
    (sym_print_statement, STATE 11814), (sym_assert_statement, STATE 11814),
    (sym_comptime_assert_statement, STATE 11814), (sym_expression_statement, STATE 11814),
    (sym_tuple_expression, STATE 12425), (sym_named_expression, STATE 7969),
    (sym__named_expression_lhs, STATE 12752), (sym_return_statement, STATE 11814),
    (sym_delete_statement, STATE 11814), (sym_raise_statement, STATE 11814),
    (sym_pass_statement, STATE 11814), (sym_break_statement, STATE 11814),
    (sym_continue_statement, STATE 11814), (sym_global_statement, STATE 11814),
    (sym_nonlocal_statement, STATE 11814), (sym_exec_statement, STATE 11814),
    (sym_type_alias_statement, STATE 11814), (sym_parameterized_alias_statement, STATE 11814),
    (sym_pattern, STATE 8086), (sym_tuple_pattern, STATE 8101), (sym_list_pattern, STATE 8101),
    (sym_list_splat_pattern, STATE 6795), (sym_as_pattern, STATE 7969),
    (sym_expression, STATE 9623), (sym_primary_expression, STATE 7326),
    (sym_comptime_expression, STATE 7017), (sym_transfer_expression, STATE 7017),
    (sym_not_operator, STATE 7969), (sym_boolean_operator, STATE 7969),
    (sym_binary_operator, STATE 7017), (sym_unary_operator, STATE 7017),
    (sym_comparison_operator, STATE 7969), (sym_lambda, STATE 7969),
    (sym_assignment, STATE 12425), (sym_augmented_assignment, STATE 12425),
    (sym_pattern_list, STATE 8578), (sym_yield, STATE 12425), (sym_attribute, STATE 6796),
    (sym_subscript, STATE 6797), (sym_call, STATE 6768), (sym_type, STATE 10130),
    (sym_called_type, STATE 9093), (sym_function_type, STATE 9093), (sym_splat_type, STATE 9093),
    (sym_generic_type, STATE 8287), (sym_union_type, STATE 9093),
    (sym_intersection_type, STATE 9093), (sym__intersection_operand, STATE 12294),
    (sym_constrained_type, STATE 9093), (sym_member_type, STATE 8165),
    (sym_mlir_type, STATE 7017), (sym_list, STATE 7017), (sym_set, STATE 7017),
    (sym_tuple, STATE 7017), (sym_dictionary, STATE 7017), (sym_struct_literal, STATE 7017),
    (sym_list_comprehension, STATE 7017), (sym_dictionary_comprehension, STATE 7017),
    (sym_set_comprehension, STATE 7017), (sym_generator_expression, STATE 7017),
    (sym_parenthesized_expression, STATE 7017), (sym_conditional_expression, STATE 7969),
    (sym_concatenated_string, STATE 7017), (sym_string, STATE 6729), (sym_await, STATE 7017),
    (sym_identifier, ACTIONS 327), (anon_sym_import, ACTIONS 11), (anon_sym_from, ACTIONS 13),
    (anon_sym_LPAREN, ACTIONS 329), (anon_sym_STAR, ACTIONS 331), (anon_sym_print, ACTIONS 333),
    (anon_sym_comptime, ACTIONS 335), (anon_sym_assert, ACTIONS 23),
    (anon_sym___comptime_assert, ACTIONS 25), (anon_sym_return, ACTIONS 27),
    (anon_sym_del, ACTIONS 29), (anon_sym_raise, ACTIONS 31), (anon_sym_pass, ACTIONS 33),
    (anon_sym_break, ACTIONS 35), (anon_sym_continue, ACTIONS 37), (anon_sym_match, ACTIONS 337),
    (anon_sym_async, ACTIONS 339), (anon_sym_def, ACTIONS 341), (anon_sym_LBRACK, ACTIONS 343),
    (anon_sym_LBRACE, ACTIONS 61), (anon_sym_STAR_STAR, ACTIONS 345),
    (anon_sym_global, ACTIONS 63), (anon_sym_nonlocal, ACTIONS 65), (anon_sym_exec, ACTIONS 347),
    (anon_sym_type, ACTIONS 349), (anon_sym_mut, ACTIONS 339), (anon_sym_out, ACTIONS 339),
    (anon_sym_DASH, ACTIONS 79), (anon_sym_PLUS, ACTIONS 79), (anon_sym_ref, ACTIONS 81),
    (anon_sym_var, ACTIONS 81), (anon_sym_not, ACTIONS 83), (anon_sym_TILDE, ACTIONS 79),
    (anon_sym_lambda, ACTIONS 85), (anon_sym_yield, ACTIONS 87), (sym_ellipsis, ACTIONS 89),
    (anon_sym___mlir_type, ACTIONS 91), (sym_integer, ACTIONS 93), (sym_float, ACTIONS 89),
    (anon_sym_await, ACTIONS 351), (sym_true, ACTIONS 93), (sym_false, ACTIONS 93),
    (sym_none, ACTIONS 93), (sym_comment, ACTIONS 3), (sym_line_continuation, ACTIONS 3),
    (sym__newline, ACTIONS 645), (sym__indent, ACTIONS 647), (sym_string_start, ACTIONS 97)]"

definition parse_table_1003 :: "(nat \<times> nat) list" where "parse_table_1003 = [
    (sym__simple_statements, STATE 5339), (sym_import_statement, STATE 11814),
    (sym_future_import_statement, STATE 11814), (sym_import_from_statement, STATE 11814),
    (sym_print_statement, STATE 11814), (sym_assert_statement, STATE 11814),
    (sym_comptime_assert_statement, STATE 11814), (sym_expression_statement, STATE 11814),
    (sym_tuple_expression, STATE 12425), (sym_named_expression, STATE 7969),
    (sym__named_expression_lhs, STATE 12752), (sym_return_statement, STATE 11814),
    (sym_delete_statement, STATE 11814), (sym_raise_statement, STATE 11814),
    (sym_pass_statement, STATE 11814), (sym_break_statement, STATE 11814),
    (sym_continue_statement, STATE 11814), (sym_global_statement, STATE 11814),
    (sym_nonlocal_statement, STATE 11814), (sym_exec_statement, STATE 11814),
    (sym_type_alias_statement, STATE 11814), (sym_parameterized_alias_statement, STATE 11814),
    (sym_pattern, STATE 8086), (sym_tuple_pattern, STATE 8101), (sym_list_pattern, STATE 8101),
    (sym_list_splat_pattern, STATE 6795), (sym_as_pattern, STATE 7969),
    (sym_expression, STATE 9623), (sym_primary_expression, STATE 7326),
    (sym_comptime_expression, STATE 7017), (sym_transfer_expression, STATE 7017),
    (sym_not_operator, STATE 7969), (sym_boolean_operator, STATE 7969),
    (sym_binary_operator, STATE 7017), (sym_unary_operator, STATE 7017),
    (sym_comparison_operator, STATE 7969), (sym_lambda, STATE 7969),
    (sym_assignment, STATE 12425), (sym_augmented_assignment, STATE 12425),
    (sym_pattern_list, STATE 8578), (sym_yield, STATE 12425), (sym_attribute, STATE 6796),
    (sym_subscript, STATE 6797), (sym_call, STATE 6768), (sym_type, STATE 10130),
    (sym_called_type, STATE 9093), (sym_function_type, STATE 9093), (sym_splat_type, STATE 9093),
    (sym_generic_type, STATE 8287), (sym_union_type, STATE 9093),
    (sym_intersection_type, STATE 9093), (sym__intersection_operand, STATE 12294),
    (sym_constrained_type, STATE 9093), (sym_member_type, STATE 8165),
    (sym_mlir_type, STATE 7017), (sym_list, STATE 7017), (sym_set, STATE 7017),
    (sym_tuple, STATE 7017), (sym_dictionary, STATE 7017), (sym_struct_literal, STATE 7017),
    (sym_list_comprehension, STATE 7017), (sym_dictionary_comprehension, STATE 7017),
    (sym_set_comprehension, STATE 7017), (sym_generator_expression, STATE 7017),
    (sym_parenthesized_expression, STATE 7017), (sym_conditional_expression, STATE 7969),
    (sym_concatenated_string, STATE 7017), (sym_string, STATE 6729), (sym_await, STATE 7017),
    (sym_identifier, ACTIONS 327), (anon_sym_import, ACTIONS 11), (anon_sym_from, ACTIONS 13),
    (anon_sym_LPAREN, ACTIONS 329), (anon_sym_STAR, ACTIONS 331), (anon_sym_print, ACTIONS 333),
    (anon_sym_comptime, ACTIONS 335), (anon_sym_assert, ACTIONS 23),
    (anon_sym___comptime_assert, ACTIONS 25), (anon_sym_return, ACTIONS 27),
    (anon_sym_del, ACTIONS 29), (anon_sym_raise, ACTIONS 31), (anon_sym_pass, ACTIONS 33),
    (anon_sym_break, ACTIONS 35), (anon_sym_continue, ACTIONS 37), (anon_sym_match, ACTIONS 337),
    (anon_sym_async, ACTIONS 339), (anon_sym_def, ACTIONS 341), (anon_sym_LBRACK, ACTIONS 343),
    (anon_sym_LBRACE, ACTIONS 61), (anon_sym_STAR_STAR, ACTIONS 345),
    (anon_sym_global, ACTIONS 63), (anon_sym_nonlocal, ACTIONS 65), (anon_sym_exec, ACTIONS 347),
    (anon_sym_type, ACTIONS 349), (anon_sym_mut, ACTIONS 339), (anon_sym_out, ACTIONS 339),
    (anon_sym_DASH, ACTIONS 79), (anon_sym_PLUS, ACTIONS 79), (anon_sym_ref, ACTIONS 81),
    (anon_sym_var, ACTIONS 81), (anon_sym_not, ACTIONS 83), (anon_sym_TILDE, ACTIONS 79),
    (anon_sym_lambda, ACTIONS 85), (anon_sym_yield, ACTIONS 87), (sym_ellipsis, ACTIONS 89),
    (anon_sym___mlir_type, ACTIONS 91), (sym_integer, ACTIONS 93), (sym_float, ACTIONS 89),
    (anon_sym_await, ACTIONS 351), (sym_true, ACTIONS 93), (sym_false, ACTIONS 93),
    (sym_none, ACTIONS 93), (sym_comment, ACTIONS 3), (sym_line_continuation, ACTIONS 3),
    (sym__newline, ACTIONS 649), (sym__indent, ACTIONS 651), (sym_string_start, ACTIONS 97)]"

definition parse_table_1004 :: "(nat \<times> nat) list" where "parse_table_1004 = [
    (sym__simple_statements, STATE 4804), (sym_import_statement, STATE 12239),
    (sym_future_import_statement, STATE 12239), (sym_import_from_statement, STATE 12239),
    (sym_print_statement, STATE 12239), (sym_assert_statement, STATE 12239),
    (sym_comptime_assert_statement, STATE 12239), (sym_expression_statement, STATE 12239),
    (sym_tuple_expression, STATE 12425), (sym_named_expression, STATE 7969),
    (sym__named_expression_lhs, STATE 12752), (sym_return_statement, STATE 12239),
    (sym_delete_statement, STATE 12239), (sym_raise_statement, STATE 12239),
    (sym_pass_statement, STATE 12239), (sym_break_statement, STATE 12239),
    (sym_continue_statement, STATE 12239), (sym_global_statement, STATE 12239),
    (sym_nonlocal_statement, STATE 12239), (sym_exec_statement, STATE 12239),
    (sym_type_alias_statement, STATE 12239), (sym_parameterized_alias_statement, STATE 12239),
    (sym_pattern, STATE 8086), (sym_tuple_pattern, STATE 8101), (sym_list_pattern, STATE 8101),
    (sym_list_splat_pattern, STATE 6795), (sym_as_pattern, STATE 7969),
    (sym_expression, STATE 9623), (sym_primary_expression, STATE 7326),
    (sym_comptime_expression, STATE 7017), (sym_transfer_expression, STATE 7017),
    (sym_not_operator, STATE 7969), (sym_boolean_operator, STATE 7969),
    (sym_binary_operator, STATE 7017), (sym_unary_operator, STATE 7017),
    (sym_comparison_operator, STATE 7969), (sym_lambda, STATE 7969),
    (sym_assignment, STATE 12425), (sym_augmented_assignment, STATE 12425),
    (sym_pattern_list, STATE 8578), (sym_yield, STATE 12425), (sym_attribute, STATE 6796),
    (sym_subscript, STATE 6797), (sym_call, STATE 6768), (sym_type, STATE 10130),
    (sym_called_type, STATE 9093), (sym_function_type, STATE 9093), (sym_splat_type, STATE 9093),
    (sym_generic_type, STATE 8287), (sym_union_type, STATE 9093),
    (sym_intersection_type, STATE 9093), (sym__intersection_operand, STATE 12294),
    (sym_constrained_type, STATE 9093), (sym_member_type, STATE 8165),
    (sym_mlir_type, STATE 7017), (sym_list, STATE 7017), (sym_set, STATE 7017),
    (sym_tuple, STATE 7017), (sym_dictionary, STATE 7017), (sym_struct_literal, STATE 7017),
    (sym_list_comprehension, STATE 7017), (sym_dictionary_comprehension, STATE 7017),
    (sym_set_comprehension, STATE 7017), (sym_generator_expression, STATE 7017),
    (sym_parenthesized_expression, STATE 7017), (sym_conditional_expression, STATE 7969),
    (sym_concatenated_string, STATE 7017), (sym_string, STATE 6729), (sym_await, STATE 7017),
    (sym_identifier, ACTIONS 327), (anon_sym_import, ACTIONS 11), (anon_sym_from, ACTIONS 13),
    (anon_sym_LPAREN, ACTIONS 329), (anon_sym_STAR, ACTIONS 331), (anon_sym_print, ACTIONS 333),
    (anon_sym_comptime, ACTIONS 335), (anon_sym_assert, ACTIONS 23),
    (anon_sym___comptime_assert, ACTIONS 25), (anon_sym_return, ACTIONS 27),
    (anon_sym_del, ACTIONS 29), (anon_sym_raise, ACTIONS 31), (anon_sym_pass, ACTIONS 33),
    (anon_sym_break, ACTIONS 35), (anon_sym_continue, ACTIONS 37), (anon_sym_match, ACTIONS 337),
    (anon_sym_async, ACTIONS 339), (anon_sym_def, ACTIONS 341), (anon_sym_LBRACK, ACTIONS 343),
    (anon_sym_LBRACE, ACTIONS 61), (anon_sym_STAR_STAR, ACTIONS 345),
    (anon_sym_global, ACTIONS 63), (anon_sym_nonlocal, ACTIONS 65), (anon_sym_exec, ACTIONS 347),
    (anon_sym_type, ACTIONS 349), (anon_sym_mut, ACTIONS 339), (anon_sym_out, ACTIONS 339),
    (anon_sym_DASH, ACTIONS 79), (anon_sym_PLUS, ACTIONS 79), (anon_sym_ref, ACTIONS 81),
    (anon_sym_var, ACTIONS 81), (anon_sym_not, ACTIONS 83), (anon_sym_TILDE, ACTIONS 79),
    (anon_sym_lambda, ACTIONS 85), (anon_sym_yield, ACTIONS 87), (sym_ellipsis, ACTIONS 89),
    (anon_sym___mlir_type, ACTIONS 91), (sym_integer, ACTIONS 93), (sym_float, ACTIONS 89),
    (anon_sym_await, ACTIONS 351), (sym_true, ACTIONS 93), (sym_false, ACTIONS 93),
    (sym_none, ACTIONS 93), (sym_comment, ACTIONS 3), (sym_line_continuation, ACTIONS 3),
    (sym__newline, ACTIONS 653), (sym__indent, ACTIONS 655), (sym_string_start, ACTIONS 97)]"

definition parse_table_1005 :: "(nat \<times> nat) list" where "parse_table_1005 = [
    (sym__simple_statements, STATE 5744), (sym_import_statement, STATE 12239),
    (sym_future_import_statement, STATE 12239), (sym_import_from_statement, STATE 12239),
    (sym_print_statement, STATE 12239), (sym_assert_statement, STATE 12239),
    (sym_comptime_assert_statement, STATE 12239), (sym_expression_statement, STATE 12239),
    (sym_tuple_expression, STATE 12425), (sym_named_expression, STATE 7969),
    (sym__named_expression_lhs, STATE 12752), (sym_return_statement, STATE 12239),
    (sym_delete_statement, STATE 12239), (sym_raise_statement, STATE 12239),
    (sym_pass_statement, STATE 12239), (sym_break_statement, STATE 12239),
    (sym_continue_statement, STATE 12239), (sym_global_statement, STATE 12239),
    (sym_nonlocal_statement, STATE 12239), (sym_exec_statement, STATE 12239),
    (sym_type_alias_statement, STATE 12239), (sym_parameterized_alias_statement, STATE 12239),
    (sym_pattern, STATE 8086), (sym_tuple_pattern, STATE 8101), (sym_list_pattern, STATE 8101),
    (sym_list_splat_pattern, STATE 6795), (sym_as_pattern, STATE 7969),
    (sym_expression, STATE 9623), (sym_primary_expression, STATE 7326),
    (sym_comptime_expression, STATE 7017), (sym_transfer_expression, STATE 7017),
    (sym_not_operator, STATE 7969), (sym_boolean_operator, STATE 7969),
    (sym_binary_operator, STATE 7017), (sym_unary_operator, STATE 7017),
    (sym_comparison_operator, STATE 7969), (sym_lambda, STATE 7969),
    (sym_assignment, STATE 12425), (sym_augmented_assignment, STATE 12425),
    (sym_pattern_list, STATE 8578), (sym_yield, STATE 12425), (sym_attribute, STATE 6796),
    (sym_subscript, STATE 6797), (sym_call, STATE 6768), (sym_type, STATE 10130),
    (sym_called_type, STATE 9093), (sym_function_type, STATE 9093), (sym_splat_type, STATE 9093),
    (sym_generic_type, STATE 8287), (sym_union_type, STATE 9093),
    (sym_intersection_type, STATE 9093), (sym__intersection_operand, STATE 12294),
    (sym_constrained_type, STATE 9093), (sym_member_type, STATE 8165),
    (sym_mlir_type, STATE 7017), (sym_list, STATE 7017), (sym_set, STATE 7017),
    (sym_tuple, STATE 7017), (sym_dictionary, STATE 7017), (sym_struct_literal, STATE 7017),
    (sym_list_comprehension, STATE 7017), (sym_dictionary_comprehension, STATE 7017),
    (sym_set_comprehension, STATE 7017), (sym_generator_expression, STATE 7017),
    (sym_parenthesized_expression, STATE 7017), (sym_conditional_expression, STATE 7969),
    (sym_concatenated_string, STATE 7017), (sym_string, STATE 6729), (sym_await, STATE 7017),
    (sym_identifier, ACTIONS 327), (anon_sym_import, ACTIONS 11), (anon_sym_from, ACTIONS 13),
    (anon_sym_LPAREN, ACTIONS 329), (anon_sym_STAR, ACTIONS 331), (anon_sym_print, ACTIONS 333),
    (anon_sym_comptime, ACTIONS 335), (anon_sym_assert, ACTIONS 23),
    (anon_sym___comptime_assert, ACTIONS 25), (anon_sym_return, ACTIONS 27),
    (anon_sym_del, ACTIONS 29), (anon_sym_raise, ACTIONS 31), (anon_sym_pass, ACTIONS 33),
    (anon_sym_break, ACTIONS 35), (anon_sym_continue, ACTIONS 37), (anon_sym_match, ACTIONS 337),
    (anon_sym_async, ACTIONS 339), (anon_sym_def, ACTIONS 341), (anon_sym_LBRACK, ACTIONS 343),
    (anon_sym_LBRACE, ACTIONS 61), (anon_sym_STAR_STAR, ACTIONS 345),
    (anon_sym_global, ACTIONS 63), (anon_sym_nonlocal, ACTIONS 65), (anon_sym_exec, ACTIONS 347),
    (anon_sym_type, ACTIONS 349), (anon_sym_mut, ACTIONS 339), (anon_sym_out, ACTIONS 339),
    (anon_sym_DASH, ACTIONS 79), (anon_sym_PLUS, ACTIONS 79), (anon_sym_ref, ACTIONS 81),
    (anon_sym_var, ACTIONS 81), (anon_sym_not, ACTIONS 83), (anon_sym_TILDE, ACTIONS 79),
    (anon_sym_lambda, ACTIONS 85), (anon_sym_yield, ACTIONS 87), (sym_ellipsis, ACTIONS 89),
    (anon_sym___mlir_type, ACTIONS 91), (sym_integer, ACTIONS 93), (sym_float, ACTIONS 89),
    (anon_sym_await, ACTIONS 351), (sym_true, ACTIONS 93), (sym_false, ACTIONS 93),
    (sym_none, ACTIONS 93), (sym_comment, ACTIONS 3), (sym_line_continuation, ACTIONS 3),
    (sym__newline, ACTIONS 657), (sym__indent, ACTIONS 659), (sym_string_start, ACTIONS 97)]"

definition parse_table_1006 :: "(nat \<times> nat) list" where "parse_table_1006 = [
    (sym__simple_statements, STATE 5369), (sym_import_statement, STATE 11814),
    (sym_future_import_statement, STATE 11814), (sym_import_from_statement, STATE 11814),
    (sym_print_statement, STATE 11814), (sym_assert_statement, STATE 11814),
    (sym_comptime_assert_statement, STATE 11814), (sym_expression_statement, STATE 11814),
    (sym_tuple_expression, STATE 12425), (sym_named_expression, STATE 7969),
    (sym__named_expression_lhs, STATE 12752), (sym_return_statement, STATE 11814),
    (sym_delete_statement, STATE 11814), (sym_raise_statement, STATE 11814),
    (sym_pass_statement, STATE 11814), (sym_break_statement, STATE 11814),
    (sym_continue_statement, STATE 11814), (sym_global_statement, STATE 11814),
    (sym_nonlocal_statement, STATE 11814), (sym_exec_statement, STATE 11814),
    (sym_type_alias_statement, STATE 11814), (sym_parameterized_alias_statement, STATE 11814),
    (sym_pattern, STATE 8086), (sym_tuple_pattern, STATE 8101), (sym_list_pattern, STATE 8101),
    (sym_list_splat_pattern, STATE 6795), (sym_as_pattern, STATE 7969),
    (sym_expression, STATE 9623), (sym_primary_expression, STATE 7326),
    (sym_comptime_expression, STATE 7017), (sym_transfer_expression, STATE 7017),
    (sym_not_operator, STATE 7969), (sym_boolean_operator, STATE 7969),
    (sym_binary_operator, STATE 7017), (sym_unary_operator, STATE 7017),
    (sym_comparison_operator, STATE 7969), (sym_lambda, STATE 7969),
    (sym_assignment, STATE 12425), (sym_augmented_assignment, STATE 12425),
    (sym_pattern_list, STATE 8578), (sym_yield, STATE 12425), (sym_attribute, STATE 6796),
    (sym_subscript, STATE 6797), (sym_call, STATE 6768), (sym_type, STATE 10130),
    (sym_called_type, STATE 9093), (sym_function_type, STATE 9093), (sym_splat_type, STATE 9093),
    (sym_generic_type, STATE 8287), (sym_union_type, STATE 9093),
    (sym_intersection_type, STATE 9093), (sym__intersection_operand, STATE 12294),
    (sym_constrained_type, STATE 9093), (sym_member_type, STATE 8165),
    (sym_mlir_type, STATE 7017), (sym_list, STATE 7017), (sym_set, STATE 7017),
    (sym_tuple, STATE 7017), (sym_dictionary, STATE 7017), (sym_struct_literal, STATE 7017),
    (sym_list_comprehension, STATE 7017), (sym_dictionary_comprehension, STATE 7017),
    (sym_set_comprehension, STATE 7017), (sym_generator_expression, STATE 7017),
    (sym_parenthesized_expression, STATE 7017), (sym_conditional_expression, STATE 7969),
    (sym_concatenated_string, STATE 7017), (sym_string, STATE 6729), (sym_await, STATE 7017),
    (sym_identifier, ACTIONS 327), (anon_sym_import, ACTIONS 11), (anon_sym_from, ACTIONS 13),
    (anon_sym_LPAREN, ACTIONS 329), (anon_sym_STAR, ACTIONS 331), (anon_sym_print, ACTIONS 333),
    (anon_sym_comptime, ACTIONS 335), (anon_sym_assert, ACTIONS 23),
    (anon_sym___comptime_assert, ACTIONS 25), (anon_sym_return, ACTIONS 27),
    (anon_sym_del, ACTIONS 29), (anon_sym_raise, ACTIONS 31), (anon_sym_pass, ACTIONS 33),
    (anon_sym_break, ACTIONS 35), (anon_sym_continue, ACTIONS 37), (anon_sym_match, ACTIONS 337),
    (anon_sym_async, ACTIONS 339), (anon_sym_def, ACTIONS 341), (anon_sym_LBRACK, ACTIONS 343),
    (anon_sym_LBRACE, ACTIONS 61), (anon_sym_STAR_STAR, ACTIONS 345),
    (anon_sym_global, ACTIONS 63), (anon_sym_nonlocal, ACTIONS 65), (anon_sym_exec, ACTIONS 347),
    (anon_sym_type, ACTIONS 349), (anon_sym_mut, ACTIONS 339), (anon_sym_out, ACTIONS 339),
    (anon_sym_DASH, ACTIONS 79), (anon_sym_PLUS, ACTIONS 79), (anon_sym_ref, ACTIONS 81),
    (anon_sym_var, ACTIONS 81), (anon_sym_not, ACTIONS 83), (anon_sym_TILDE, ACTIONS 79),
    (anon_sym_lambda, ACTIONS 85), (anon_sym_yield, ACTIONS 87), (sym_ellipsis, ACTIONS 89),
    (anon_sym___mlir_type, ACTIONS 91), (sym_integer, ACTIONS 93), (sym_float, ACTIONS 89),
    (anon_sym_await, ACTIONS 351), (sym_true, ACTIONS 93), (sym_false, ACTIONS 93),
    (sym_none, ACTIONS 93), (sym_comment, ACTIONS 3), (sym_line_continuation, ACTIONS 3),
    (sym__newline, ACTIONS 661), (sym__indent, ACTIONS 663), (sym_string_start, ACTIONS 97)]"

definition parse_table_1007 :: "(nat \<times> nat) list" where "parse_table_1007 = [
    (sym__simple_statements, STATE 5302), (sym_import_statement, STATE 12239),
    (sym_future_import_statement, STATE 12239), (sym_import_from_statement, STATE 12239),
    (sym_print_statement, STATE 12239), (sym_assert_statement, STATE 12239),
    (sym_comptime_assert_statement, STATE 12239), (sym_expression_statement, STATE 12239),
    (sym_tuple_expression, STATE 12425), (sym_named_expression, STATE 7969),
    (sym__named_expression_lhs, STATE 12752), (sym_return_statement, STATE 12239),
    (sym_delete_statement, STATE 12239), (sym_raise_statement, STATE 12239),
    (sym_pass_statement, STATE 12239), (sym_break_statement, STATE 12239),
    (sym_continue_statement, STATE 12239), (sym_global_statement, STATE 12239),
    (sym_nonlocal_statement, STATE 12239), (sym_exec_statement, STATE 12239),
    (sym_type_alias_statement, STATE 12239), (sym_parameterized_alias_statement, STATE 12239),
    (sym_pattern, STATE 8086), (sym_tuple_pattern, STATE 8101), (sym_list_pattern, STATE 8101),
    (sym_list_splat_pattern, STATE 6795), (sym_as_pattern, STATE 7969),
    (sym_expression, STATE 9623), (sym_primary_expression, STATE 7326),
    (sym_comptime_expression, STATE 7017), (sym_transfer_expression, STATE 7017),
    (sym_not_operator, STATE 7969), (sym_boolean_operator, STATE 7969),
    (sym_binary_operator, STATE 7017), (sym_unary_operator, STATE 7017),
    (sym_comparison_operator, STATE 7969), (sym_lambda, STATE 7969),
    (sym_assignment, STATE 12425), (sym_augmented_assignment, STATE 12425),
    (sym_pattern_list, STATE 8578), (sym_yield, STATE 12425), (sym_attribute, STATE 6796),
    (sym_subscript, STATE 6797), (sym_call, STATE 6768), (sym_type, STATE 10130),
    (sym_called_type, STATE 9093), (sym_function_type, STATE 9093), (sym_splat_type, STATE 9093),
    (sym_generic_type, STATE 8287), (sym_union_type, STATE 9093),
    (sym_intersection_type, STATE 9093), (sym__intersection_operand, STATE 12294),
    (sym_constrained_type, STATE 9093), (sym_member_type, STATE 8165),
    (sym_mlir_type, STATE 7017), (sym_list, STATE 7017), (sym_set, STATE 7017),
    (sym_tuple, STATE 7017), (sym_dictionary, STATE 7017), (sym_struct_literal, STATE 7017),
    (sym_list_comprehension, STATE 7017), (sym_dictionary_comprehension, STATE 7017),
    (sym_set_comprehension, STATE 7017), (sym_generator_expression, STATE 7017),
    (sym_parenthesized_expression, STATE 7017), (sym_conditional_expression, STATE 7969),
    (sym_concatenated_string, STATE 7017), (sym_string, STATE 6729), (sym_await, STATE 7017),
    (sym_identifier, ACTIONS 327), (anon_sym_import, ACTIONS 11), (anon_sym_from, ACTIONS 13),
    (anon_sym_LPAREN, ACTIONS 329), (anon_sym_STAR, ACTIONS 331), (anon_sym_print, ACTIONS 333),
    (anon_sym_comptime, ACTIONS 335), (anon_sym_assert, ACTIONS 23),
    (anon_sym___comptime_assert, ACTIONS 25), (anon_sym_return, ACTIONS 27),
    (anon_sym_del, ACTIONS 29), (anon_sym_raise, ACTIONS 31), (anon_sym_pass, ACTIONS 33),
    (anon_sym_break, ACTIONS 35), (anon_sym_continue, ACTIONS 37), (anon_sym_match, ACTIONS 337),
    (anon_sym_async, ACTIONS 339), (anon_sym_def, ACTIONS 341), (anon_sym_LBRACK, ACTIONS 343),
    (anon_sym_LBRACE, ACTIONS 61), (anon_sym_STAR_STAR, ACTIONS 345),
    (anon_sym_global, ACTIONS 63), (anon_sym_nonlocal, ACTIONS 65), (anon_sym_exec, ACTIONS 347),
    (anon_sym_type, ACTIONS 349), (anon_sym_mut, ACTIONS 339), (anon_sym_out, ACTIONS 339),
    (anon_sym_DASH, ACTIONS 79), (anon_sym_PLUS, ACTIONS 79), (anon_sym_ref, ACTIONS 81),
    (anon_sym_var, ACTIONS 81), (anon_sym_not, ACTIONS 83), (anon_sym_TILDE, ACTIONS 79),
    (anon_sym_lambda, ACTIONS 85), (anon_sym_yield, ACTIONS 87), (sym_ellipsis, ACTIONS 89),
    (anon_sym___mlir_type, ACTIONS 91), (sym_integer, ACTIONS 93), (sym_float, ACTIONS 89),
    (anon_sym_await, ACTIONS 351), (sym_true, ACTIONS 93), (sym_false, ACTIONS 93),
    (sym_none, ACTIONS 93), (sym_comment, ACTIONS 3), (sym_line_continuation, ACTIONS 3),
    (sym__newline, ACTIONS 665), (sym__indent, ACTIONS 667), (sym_string_start, ACTIONS 97)]"

definition parse_table_1008 :: "(nat \<times> nat) list" where "parse_table_1008 = [
    (sym__simple_statements, STATE 5765), (sym_import_statement, STATE 12239),
    (sym_future_import_statement, STATE 12239), (sym_import_from_statement, STATE 12239),
    (sym_print_statement, STATE 12239), (sym_assert_statement, STATE 12239),
    (sym_comptime_assert_statement, STATE 12239), (sym_expression_statement, STATE 12239),
    (sym_tuple_expression, STATE 12425), (sym_named_expression, STATE 7969),
    (sym__named_expression_lhs, STATE 12752), (sym_return_statement, STATE 12239),
    (sym_delete_statement, STATE 12239), (sym_raise_statement, STATE 12239),
    (sym_pass_statement, STATE 12239), (sym_break_statement, STATE 12239),
    (sym_continue_statement, STATE 12239), (sym_global_statement, STATE 12239),
    (sym_nonlocal_statement, STATE 12239), (sym_exec_statement, STATE 12239),
    (sym_type_alias_statement, STATE 12239), (sym_parameterized_alias_statement, STATE 12239),
    (sym_pattern, STATE 8086), (sym_tuple_pattern, STATE 8101), (sym_list_pattern, STATE 8101),
    (sym_list_splat_pattern, STATE 6795), (sym_as_pattern, STATE 7969),
    (sym_expression, STATE 9623), (sym_primary_expression, STATE 7326),
    (sym_comptime_expression, STATE 7017), (sym_transfer_expression, STATE 7017),
    (sym_not_operator, STATE 7969), (sym_boolean_operator, STATE 7969),
    (sym_binary_operator, STATE 7017), (sym_unary_operator, STATE 7017),
    (sym_comparison_operator, STATE 7969), (sym_lambda, STATE 7969),
    (sym_assignment, STATE 12425), (sym_augmented_assignment, STATE 12425),
    (sym_pattern_list, STATE 8578), (sym_yield, STATE 12425), (sym_attribute, STATE 6796),
    (sym_subscript, STATE 6797), (sym_call, STATE 6768), (sym_type, STATE 10130),
    (sym_called_type, STATE 9093), (sym_function_type, STATE 9093), (sym_splat_type, STATE 9093),
    (sym_generic_type, STATE 8287), (sym_union_type, STATE 9093),
    (sym_intersection_type, STATE 9093), (sym__intersection_operand, STATE 12294),
    (sym_constrained_type, STATE 9093), (sym_member_type, STATE 8165),
    (sym_mlir_type, STATE 7017), (sym_list, STATE 7017), (sym_set, STATE 7017),
    (sym_tuple, STATE 7017), (sym_dictionary, STATE 7017), (sym_struct_literal, STATE 7017),
    (sym_list_comprehension, STATE 7017), (sym_dictionary_comprehension, STATE 7017),
    (sym_set_comprehension, STATE 7017), (sym_generator_expression, STATE 7017),
    (sym_parenthesized_expression, STATE 7017), (sym_conditional_expression, STATE 7969),
    (sym_concatenated_string, STATE 7017), (sym_string, STATE 6729), (sym_await, STATE 7017),
    (sym_identifier, ACTIONS 327), (anon_sym_import, ACTIONS 11), (anon_sym_from, ACTIONS 13),
    (anon_sym_LPAREN, ACTIONS 329), (anon_sym_STAR, ACTIONS 331), (anon_sym_print, ACTIONS 333),
    (anon_sym_comptime, ACTIONS 335), (anon_sym_assert, ACTIONS 23),
    (anon_sym___comptime_assert, ACTIONS 25), (anon_sym_return, ACTIONS 27),
    (anon_sym_del, ACTIONS 29), (anon_sym_raise, ACTIONS 31), (anon_sym_pass, ACTIONS 33),
    (anon_sym_break, ACTIONS 35), (anon_sym_continue, ACTIONS 37), (anon_sym_match, ACTIONS 337),
    (anon_sym_async, ACTIONS 339), (anon_sym_def, ACTIONS 341), (anon_sym_LBRACK, ACTIONS 343),
    (anon_sym_LBRACE, ACTIONS 61), (anon_sym_STAR_STAR, ACTIONS 345),
    (anon_sym_global, ACTIONS 63), (anon_sym_nonlocal, ACTIONS 65), (anon_sym_exec, ACTIONS 347),
    (anon_sym_type, ACTIONS 349), (anon_sym_mut, ACTIONS 339), (anon_sym_out, ACTIONS 339),
    (anon_sym_DASH, ACTIONS 79), (anon_sym_PLUS, ACTIONS 79), (anon_sym_ref, ACTIONS 81),
    (anon_sym_var, ACTIONS 81), (anon_sym_not, ACTIONS 83), (anon_sym_TILDE, ACTIONS 79),
    (anon_sym_lambda, ACTIONS 85), (anon_sym_yield, ACTIONS 87), (sym_ellipsis, ACTIONS 89),
    (anon_sym___mlir_type, ACTIONS 91), (sym_integer, ACTIONS 93), (sym_float, ACTIONS 89),
    (anon_sym_await, ACTIONS 351), (sym_true, ACTIONS 93), (sym_false, ACTIONS 93),
    (sym_none, ACTIONS 93), (sym_comment, ACTIONS 3), (sym_line_continuation, ACTIONS 3),
    (sym__newline, ACTIONS 669), (sym__indent, ACTIONS 671), (sym_string_start, ACTIONS 97)]"

definition parse_table_1009 :: "(nat \<times> nat) list" where "parse_table_1009 = [
    (sym__simple_statements, STATE 5769), (sym_import_statement, STATE 12239),
    (sym_future_import_statement, STATE 12239), (sym_import_from_statement, STATE 12239),
    (sym_print_statement, STATE 12239), (sym_assert_statement, STATE 12239),
    (sym_comptime_assert_statement, STATE 12239), (sym_expression_statement, STATE 12239),
    (sym_tuple_expression, STATE 12425), (sym_named_expression, STATE 7969),
    (sym__named_expression_lhs, STATE 12752), (sym_return_statement, STATE 12239),
    (sym_delete_statement, STATE 12239), (sym_raise_statement, STATE 12239),
    (sym_pass_statement, STATE 12239), (sym_break_statement, STATE 12239),
    (sym_continue_statement, STATE 12239), (sym_global_statement, STATE 12239),
    (sym_nonlocal_statement, STATE 12239), (sym_exec_statement, STATE 12239),
    (sym_type_alias_statement, STATE 12239), (sym_parameterized_alias_statement, STATE 12239),
    (sym_pattern, STATE 8086), (sym_tuple_pattern, STATE 8101), (sym_list_pattern, STATE 8101),
    (sym_list_splat_pattern, STATE 6795), (sym_as_pattern, STATE 7969),
    (sym_expression, STATE 9623), (sym_primary_expression, STATE 7326),
    (sym_comptime_expression, STATE 7017), (sym_transfer_expression, STATE 7017),
    (sym_not_operator, STATE 7969), (sym_boolean_operator, STATE 7969),
    (sym_binary_operator, STATE 7017), (sym_unary_operator, STATE 7017),
    (sym_comparison_operator, STATE 7969), (sym_lambda, STATE 7969),
    (sym_assignment, STATE 12425), (sym_augmented_assignment, STATE 12425),
    (sym_pattern_list, STATE 8578), (sym_yield, STATE 12425), (sym_attribute, STATE 6796),
    (sym_subscript, STATE 6797), (sym_call, STATE 6768), (sym_type, STATE 10130),
    (sym_called_type, STATE 9093), (sym_function_type, STATE 9093), (sym_splat_type, STATE 9093),
    (sym_generic_type, STATE 8287), (sym_union_type, STATE 9093),
    (sym_intersection_type, STATE 9093), (sym__intersection_operand, STATE 12294),
    (sym_constrained_type, STATE 9093), (sym_member_type, STATE 8165),
    (sym_mlir_type, STATE 7017), (sym_list, STATE 7017), (sym_set, STATE 7017),
    (sym_tuple, STATE 7017), (sym_dictionary, STATE 7017), (sym_struct_literal, STATE 7017),
    (sym_list_comprehension, STATE 7017), (sym_dictionary_comprehension, STATE 7017),
    (sym_set_comprehension, STATE 7017), (sym_generator_expression, STATE 7017),
    (sym_parenthesized_expression, STATE 7017), (sym_conditional_expression, STATE 7969),
    (sym_concatenated_string, STATE 7017), (sym_string, STATE 6729), (sym_await, STATE 7017),
    (sym_identifier, ACTIONS 327), (anon_sym_import, ACTIONS 11), (anon_sym_from, ACTIONS 13),
    (anon_sym_LPAREN, ACTIONS 329), (anon_sym_STAR, ACTIONS 331), (anon_sym_print, ACTIONS 333),
    (anon_sym_comptime, ACTIONS 335), (anon_sym_assert, ACTIONS 23),
    (anon_sym___comptime_assert, ACTIONS 25), (anon_sym_return, ACTIONS 27),
    (anon_sym_del, ACTIONS 29), (anon_sym_raise, ACTIONS 31), (anon_sym_pass, ACTIONS 33),
    (anon_sym_break, ACTIONS 35), (anon_sym_continue, ACTIONS 37), (anon_sym_match, ACTIONS 337),
    (anon_sym_async, ACTIONS 339), (anon_sym_def, ACTIONS 341), (anon_sym_LBRACK, ACTIONS 343),
    (anon_sym_LBRACE, ACTIONS 61), (anon_sym_STAR_STAR, ACTIONS 345),
    (anon_sym_global, ACTIONS 63), (anon_sym_nonlocal, ACTIONS 65), (anon_sym_exec, ACTIONS 347),
    (anon_sym_type, ACTIONS 349), (anon_sym_mut, ACTIONS 339), (anon_sym_out, ACTIONS 339),
    (anon_sym_DASH, ACTIONS 79), (anon_sym_PLUS, ACTIONS 79), (anon_sym_ref, ACTIONS 81),
    (anon_sym_var, ACTIONS 81), (anon_sym_not, ACTIONS 83), (anon_sym_TILDE, ACTIONS 79),
    (anon_sym_lambda, ACTIONS 85), (anon_sym_yield, ACTIONS 87), (sym_ellipsis, ACTIONS 89),
    (anon_sym___mlir_type, ACTIONS 91), (sym_integer, ACTIONS 93), (sym_float, ACTIONS 89),
    (anon_sym_await, ACTIONS 351), (sym_true, ACTIONS 93), (sym_false, ACTIONS 93),
    (sym_none, ACTIONS 93), (sym_comment, ACTIONS 3), (sym_line_continuation, ACTIONS 3),
    (sym__newline, ACTIONS 673), (sym__indent, ACTIONS 675), (sym_string_start, ACTIONS 97)]"

definition parse_table_1010 :: "(nat \<times> nat) list" where "parse_table_1010 = [
    (sym__simple_statements, STATE 5076), (sym_import_statement, STATE 12239),
    (sym_future_import_statement, STATE 12239), (sym_import_from_statement, STATE 12239),
    (sym_print_statement, STATE 12239), (sym_assert_statement, STATE 12239),
    (sym_comptime_assert_statement, STATE 12239), (sym_expression_statement, STATE 12239),
    (sym_tuple_expression, STATE 12425), (sym_named_expression, STATE 7969),
    (sym__named_expression_lhs, STATE 12752), (sym_return_statement, STATE 12239),
    (sym_delete_statement, STATE 12239), (sym_raise_statement, STATE 12239),
    (sym_pass_statement, STATE 12239), (sym_break_statement, STATE 12239),
    (sym_continue_statement, STATE 12239), (sym_global_statement, STATE 12239),
    (sym_nonlocal_statement, STATE 12239), (sym_exec_statement, STATE 12239),
    (sym_type_alias_statement, STATE 12239), (sym_parameterized_alias_statement, STATE 12239),
    (sym_pattern, STATE 8086), (sym_tuple_pattern, STATE 8101), (sym_list_pattern, STATE 8101),
    (sym_list_splat_pattern, STATE 6795), (sym_as_pattern, STATE 7969),
    (sym_expression, STATE 9623), (sym_primary_expression, STATE 7326),
    (sym_comptime_expression, STATE 7017), (sym_transfer_expression, STATE 7017),
    (sym_not_operator, STATE 7969), (sym_boolean_operator, STATE 7969),
    (sym_binary_operator, STATE 7017), (sym_unary_operator, STATE 7017),
    (sym_comparison_operator, STATE 7969), (sym_lambda, STATE 7969),
    (sym_assignment, STATE 12425), (sym_augmented_assignment, STATE 12425),
    (sym_pattern_list, STATE 8578), (sym_yield, STATE 12425), (sym_attribute, STATE 6796),
    (sym_subscript, STATE 6797), (sym_call, STATE 6768), (sym_type, STATE 10130),
    (sym_called_type, STATE 9093), (sym_function_type, STATE 9093), (sym_splat_type, STATE 9093),
    (sym_generic_type, STATE 8287), (sym_union_type, STATE 9093),
    (sym_intersection_type, STATE 9093), (sym__intersection_operand, STATE 12294),
    (sym_constrained_type, STATE 9093), (sym_member_type, STATE 8165),
    (sym_mlir_type, STATE 7017), (sym_list, STATE 7017), (sym_set, STATE 7017),
    (sym_tuple, STATE 7017), (sym_dictionary, STATE 7017), (sym_struct_literal, STATE 7017),
    (sym_list_comprehension, STATE 7017), (sym_dictionary_comprehension, STATE 7017),
    (sym_set_comprehension, STATE 7017), (sym_generator_expression, STATE 7017),
    (sym_parenthesized_expression, STATE 7017), (sym_conditional_expression, STATE 7969),
    (sym_concatenated_string, STATE 7017), (sym_string, STATE 6729), (sym_await, STATE 7017),
    (sym_identifier, ACTIONS 327), (anon_sym_import, ACTIONS 11), (anon_sym_from, ACTIONS 13),
    (anon_sym_LPAREN, ACTIONS 329), (anon_sym_STAR, ACTIONS 331), (anon_sym_print, ACTIONS 333),
    (anon_sym_comptime, ACTIONS 335), (anon_sym_assert, ACTIONS 23),
    (anon_sym___comptime_assert, ACTIONS 25), (anon_sym_return, ACTIONS 27),
    (anon_sym_del, ACTIONS 29), (anon_sym_raise, ACTIONS 31), (anon_sym_pass, ACTIONS 33),
    (anon_sym_break, ACTIONS 35), (anon_sym_continue, ACTIONS 37), (anon_sym_match, ACTIONS 337),
    (anon_sym_async, ACTIONS 339), (anon_sym_def, ACTIONS 341), (anon_sym_LBRACK, ACTIONS 343),
    (anon_sym_LBRACE, ACTIONS 61), (anon_sym_STAR_STAR, ACTIONS 345),
    (anon_sym_global, ACTIONS 63), (anon_sym_nonlocal, ACTIONS 65), (anon_sym_exec, ACTIONS 347),
    (anon_sym_type, ACTIONS 349), (anon_sym_mut, ACTIONS 339), (anon_sym_out, ACTIONS 339),
    (anon_sym_DASH, ACTIONS 79), (anon_sym_PLUS, ACTIONS 79), (anon_sym_ref, ACTIONS 81),
    (anon_sym_var, ACTIONS 81), (anon_sym_not, ACTIONS 83), (anon_sym_TILDE, ACTIONS 79),
    (anon_sym_lambda, ACTIONS 85), (anon_sym_yield, ACTIONS 87), (sym_ellipsis, ACTIONS 89),
    (anon_sym___mlir_type, ACTIONS 91), (sym_integer, ACTIONS 93), (sym_float, ACTIONS 89),
    (anon_sym_await, ACTIONS 351), (sym_true, ACTIONS 93), (sym_false, ACTIONS 93),
    (sym_none, ACTIONS 93), (sym_comment, ACTIONS 3), (sym_line_continuation, ACTIONS 3),
    (sym__newline, ACTIONS 677), (sym__indent, ACTIONS 679), (sym_string_start, ACTIONS 97)]"

definition parse_table_1011 :: "(nat \<times> nat) list" where "parse_table_1011 = [
    (sym__simple_statements, STATE 5799), (sym_import_statement, STATE 12239),
    (sym_future_import_statement, STATE 12239), (sym_import_from_statement, STATE 12239),
    (sym_print_statement, STATE 12239), (sym_assert_statement, STATE 12239),
    (sym_comptime_assert_statement, STATE 12239), (sym_expression_statement, STATE 12239),
    (sym_tuple_expression, STATE 12425), (sym_named_expression, STATE 7969),
    (sym__named_expression_lhs, STATE 12752), (sym_return_statement, STATE 12239),
    (sym_delete_statement, STATE 12239), (sym_raise_statement, STATE 12239),
    (sym_pass_statement, STATE 12239), (sym_break_statement, STATE 12239),
    (sym_continue_statement, STATE 12239), (sym_global_statement, STATE 12239),
    (sym_nonlocal_statement, STATE 12239), (sym_exec_statement, STATE 12239),
    (sym_type_alias_statement, STATE 12239), (sym_parameterized_alias_statement, STATE 12239),
    (sym_pattern, STATE 8086), (sym_tuple_pattern, STATE 8101), (sym_list_pattern, STATE 8101),
    (sym_list_splat_pattern, STATE 6795), (sym_as_pattern, STATE 7969),
    (sym_expression, STATE 9623), (sym_primary_expression, STATE 7326),
    (sym_comptime_expression, STATE 7017), (sym_transfer_expression, STATE 7017),
    (sym_not_operator, STATE 7969), (sym_boolean_operator, STATE 7969),
    (sym_binary_operator, STATE 7017), (sym_unary_operator, STATE 7017),
    (sym_comparison_operator, STATE 7969), (sym_lambda, STATE 7969),
    (sym_assignment, STATE 12425), (sym_augmented_assignment, STATE 12425),
    (sym_pattern_list, STATE 8578), (sym_yield, STATE 12425), (sym_attribute, STATE 6796),
    (sym_subscript, STATE 6797), (sym_call, STATE 6768), (sym_type, STATE 10130),
    (sym_called_type, STATE 9093), (sym_function_type, STATE 9093), (sym_splat_type, STATE 9093),
    (sym_generic_type, STATE 8287), (sym_union_type, STATE 9093),
    (sym_intersection_type, STATE 9093), (sym__intersection_operand, STATE 12294),
    (sym_constrained_type, STATE 9093), (sym_member_type, STATE 8165),
    (sym_mlir_type, STATE 7017), (sym_list, STATE 7017), (sym_set, STATE 7017),
    (sym_tuple, STATE 7017), (sym_dictionary, STATE 7017), (sym_struct_literal, STATE 7017),
    (sym_list_comprehension, STATE 7017), (sym_dictionary_comprehension, STATE 7017),
    (sym_set_comprehension, STATE 7017), (sym_generator_expression, STATE 7017),
    (sym_parenthesized_expression, STATE 7017), (sym_conditional_expression, STATE 7969),
    (sym_concatenated_string, STATE 7017), (sym_string, STATE 6729), (sym_await, STATE 7017),
    (sym_identifier, ACTIONS 327), (anon_sym_import, ACTIONS 11), (anon_sym_from, ACTIONS 13),
    (anon_sym_LPAREN, ACTIONS 329), (anon_sym_STAR, ACTIONS 331), (anon_sym_print, ACTIONS 333),
    (anon_sym_comptime, ACTIONS 335), (anon_sym_assert, ACTIONS 23),
    (anon_sym___comptime_assert, ACTIONS 25), (anon_sym_return, ACTIONS 27),
    (anon_sym_del, ACTIONS 29), (anon_sym_raise, ACTIONS 31), (anon_sym_pass, ACTIONS 33),
    (anon_sym_break, ACTIONS 35), (anon_sym_continue, ACTIONS 37), (anon_sym_match, ACTIONS 337),
    (anon_sym_async, ACTIONS 339), (anon_sym_def, ACTIONS 341), (anon_sym_LBRACK, ACTIONS 343),
    (anon_sym_LBRACE, ACTIONS 61), (anon_sym_STAR_STAR, ACTIONS 345),
    (anon_sym_global, ACTIONS 63), (anon_sym_nonlocal, ACTIONS 65), (anon_sym_exec, ACTIONS 347),
    (anon_sym_type, ACTIONS 349), (anon_sym_mut, ACTIONS 339), (anon_sym_out, ACTIONS 339),
    (anon_sym_DASH, ACTIONS 79), (anon_sym_PLUS, ACTIONS 79), (anon_sym_ref, ACTIONS 81),
    (anon_sym_var, ACTIONS 81), (anon_sym_not, ACTIONS 83), (anon_sym_TILDE, ACTIONS 79),
    (anon_sym_lambda, ACTIONS 85), (anon_sym_yield, ACTIONS 87), (sym_ellipsis, ACTIONS 89),
    (anon_sym___mlir_type, ACTIONS 91), (sym_integer, ACTIONS 93), (sym_float, ACTIONS 89),
    (anon_sym_await, ACTIONS 351), (sym_true, ACTIONS 93), (sym_false, ACTIONS 93),
    (sym_none, ACTIONS 93), (sym_comment, ACTIONS 3), (sym_line_continuation, ACTIONS 3),
    (sym__newline, ACTIONS 681), (sym__indent, ACTIONS 683), (sym_string_start, ACTIONS 97)]"

definition parse_table_1012 :: "(nat \<times> nat) list" where "parse_table_1012 = [
    (sym__simple_statements, STATE 5054), (sym_import_statement, STATE 12239),
    (sym_future_import_statement, STATE 12239), (sym_import_from_statement, STATE 12239),
    (sym_print_statement, STATE 12239), (sym_assert_statement, STATE 12239),
    (sym_comptime_assert_statement, STATE 12239), (sym_expression_statement, STATE 12239),
    (sym_tuple_expression, STATE 12425), (sym_named_expression, STATE 7969),
    (sym__named_expression_lhs, STATE 12752), (sym_return_statement, STATE 12239),
    (sym_delete_statement, STATE 12239), (sym_raise_statement, STATE 12239),
    (sym_pass_statement, STATE 12239), (sym_break_statement, STATE 12239),
    (sym_continue_statement, STATE 12239), (sym_global_statement, STATE 12239),
    (sym_nonlocal_statement, STATE 12239), (sym_exec_statement, STATE 12239),
    (sym_type_alias_statement, STATE 12239), (sym_parameterized_alias_statement, STATE 12239),
    (sym_pattern, STATE 8086), (sym_tuple_pattern, STATE 8101), (sym_list_pattern, STATE 8101),
    (sym_list_splat_pattern, STATE 6795), (sym_as_pattern, STATE 7969),
    (sym_expression, STATE 9623), (sym_primary_expression, STATE 7326),
    (sym_comptime_expression, STATE 7017), (sym_transfer_expression, STATE 7017),
    (sym_not_operator, STATE 7969), (sym_boolean_operator, STATE 7969),
    (sym_binary_operator, STATE 7017), (sym_unary_operator, STATE 7017),
    (sym_comparison_operator, STATE 7969), (sym_lambda, STATE 7969),
    (sym_assignment, STATE 12425), (sym_augmented_assignment, STATE 12425),
    (sym_pattern_list, STATE 8578), (sym_yield, STATE 12425), (sym_attribute, STATE 6796),
    (sym_subscript, STATE 6797), (sym_call, STATE 6768), (sym_type, STATE 10130),
    (sym_called_type, STATE 9093), (sym_function_type, STATE 9093), (sym_splat_type, STATE 9093),
    (sym_generic_type, STATE 8287), (sym_union_type, STATE 9093),
    (sym_intersection_type, STATE 9093), (sym__intersection_operand, STATE 12294),
    (sym_constrained_type, STATE 9093), (sym_member_type, STATE 8165),
    (sym_mlir_type, STATE 7017), (sym_list, STATE 7017), (sym_set, STATE 7017),
    (sym_tuple, STATE 7017), (sym_dictionary, STATE 7017), (sym_struct_literal, STATE 7017),
    (sym_list_comprehension, STATE 7017), (sym_dictionary_comprehension, STATE 7017),
    (sym_set_comprehension, STATE 7017), (sym_generator_expression, STATE 7017),
    (sym_parenthesized_expression, STATE 7017), (sym_conditional_expression, STATE 7969),
    (sym_concatenated_string, STATE 7017), (sym_string, STATE 6729), (sym_await, STATE 7017),
    (sym_identifier, ACTIONS 327), (anon_sym_import, ACTIONS 11), (anon_sym_from, ACTIONS 13),
    (anon_sym_LPAREN, ACTIONS 329), (anon_sym_STAR, ACTIONS 331), (anon_sym_print, ACTIONS 333),
    (anon_sym_comptime, ACTIONS 335), (anon_sym_assert, ACTIONS 23),
    (anon_sym___comptime_assert, ACTIONS 25), (anon_sym_return, ACTIONS 27),
    (anon_sym_del, ACTIONS 29), (anon_sym_raise, ACTIONS 31), (anon_sym_pass, ACTIONS 33),
    (anon_sym_break, ACTIONS 35), (anon_sym_continue, ACTIONS 37), (anon_sym_match, ACTIONS 337),
    (anon_sym_async, ACTIONS 339), (anon_sym_def, ACTIONS 341), (anon_sym_LBRACK, ACTIONS 343),
    (anon_sym_LBRACE, ACTIONS 61), (anon_sym_STAR_STAR, ACTIONS 345),
    (anon_sym_global, ACTIONS 63), (anon_sym_nonlocal, ACTIONS 65), (anon_sym_exec, ACTIONS 347),
    (anon_sym_type, ACTIONS 349), (anon_sym_mut, ACTIONS 339), (anon_sym_out, ACTIONS 339),
    (anon_sym_DASH, ACTIONS 79), (anon_sym_PLUS, ACTIONS 79), (anon_sym_ref, ACTIONS 81),
    (anon_sym_var, ACTIONS 81), (anon_sym_not, ACTIONS 83), (anon_sym_TILDE, ACTIONS 79),
    (anon_sym_lambda, ACTIONS 85), (anon_sym_yield, ACTIONS 87), (sym_ellipsis, ACTIONS 89),
    (anon_sym___mlir_type, ACTIONS 91), (sym_integer, ACTIONS 93), (sym_float, ACTIONS 89),
    (anon_sym_await, ACTIONS 351), (sym_true, ACTIONS 93), (sym_false, ACTIONS 93),
    (sym_none, ACTIONS 93), (sym_comment, ACTIONS 3), (sym_line_continuation, ACTIONS 3),
    (sym__newline, ACTIONS 685), (sym__indent, ACTIONS 687), (sym_string_start, ACTIONS 97)]"

definition parse_table_1013 :: "(nat \<times> nat) list" where "parse_table_1013 = [
    (sym__simple_statements, STATE 4489), (sym_import_statement, STATE 12239),
    (sym_future_import_statement, STATE 12239), (sym_import_from_statement, STATE 12239),
    (sym_print_statement, STATE 12239), (sym_assert_statement, STATE 12239),
    (sym_comptime_assert_statement, STATE 12239), (sym_expression_statement, STATE 12239),
    (sym_tuple_expression, STATE 12425), (sym_named_expression, STATE 7969),
    (sym__named_expression_lhs, STATE 12752), (sym_return_statement, STATE 12239),
    (sym_delete_statement, STATE 12239), (sym_raise_statement, STATE 12239),
    (sym_pass_statement, STATE 12239), (sym_break_statement, STATE 12239),
    (sym_continue_statement, STATE 12239), (sym_global_statement, STATE 12239),
    (sym_nonlocal_statement, STATE 12239), (sym_exec_statement, STATE 12239),
    (sym_type_alias_statement, STATE 12239), (sym_parameterized_alias_statement, STATE 12239),
    (sym_pattern, STATE 8086), (sym_tuple_pattern, STATE 8101), (sym_list_pattern, STATE 8101),
    (sym_list_splat_pattern, STATE 6795), (sym_as_pattern, STATE 7969),
    (sym_expression, STATE 9623), (sym_primary_expression, STATE 7326),
    (sym_comptime_expression, STATE 7017), (sym_transfer_expression, STATE 7017),
    (sym_not_operator, STATE 7969), (sym_boolean_operator, STATE 7969),
    (sym_binary_operator, STATE 7017), (sym_unary_operator, STATE 7017),
    (sym_comparison_operator, STATE 7969), (sym_lambda, STATE 7969),
    (sym_assignment, STATE 12425), (sym_augmented_assignment, STATE 12425),
    (sym_pattern_list, STATE 8578), (sym_yield, STATE 12425), (sym_attribute, STATE 6796),
    (sym_subscript, STATE 6797), (sym_call, STATE 6768), (sym_type, STATE 10130),
    (sym_called_type, STATE 9093), (sym_function_type, STATE 9093), (sym_splat_type, STATE 9093),
    (sym_generic_type, STATE 8287), (sym_union_type, STATE 9093),
    (sym_intersection_type, STATE 9093), (sym__intersection_operand, STATE 12294),
    (sym_constrained_type, STATE 9093), (sym_member_type, STATE 8165),
    (sym_mlir_type, STATE 7017), (sym_list, STATE 7017), (sym_set, STATE 7017),
    (sym_tuple, STATE 7017), (sym_dictionary, STATE 7017), (sym_struct_literal, STATE 7017),
    (sym_list_comprehension, STATE 7017), (sym_dictionary_comprehension, STATE 7017),
    (sym_set_comprehension, STATE 7017), (sym_generator_expression, STATE 7017),
    (sym_parenthesized_expression, STATE 7017), (sym_conditional_expression, STATE 7969),
    (sym_concatenated_string, STATE 7017), (sym_string, STATE 6729), (sym_await, STATE 7017),
    (sym_identifier, ACTIONS 327), (anon_sym_import, ACTIONS 11), (anon_sym_from, ACTIONS 13),
    (anon_sym_LPAREN, ACTIONS 329), (anon_sym_STAR, ACTIONS 331), (anon_sym_print, ACTIONS 333),
    (anon_sym_comptime, ACTIONS 335), (anon_sym_assert, ACTIONS 23),
    (anon_sym___comptime_assert, ACTIONS 25), (anon_sym_return, ACTIONS 27),
    (anon_sym_del, ACTIONS 29), (anon_sym_raise, ACTIONS 31), (anon_sym_pass, ACTIONS 33),
    (anon_sym_break, ACTIONS 35), (anon_sym_continue, ACTIONS 37), (anon_sym_match, ACTIONS 337),
    (anon_sym_async, ACTIONS 339), (anon_sym_def, ACTIONS 341), (anon_sym_LBRACK, ACTIONS 343),
    (anon_sym_LBRACE, ACTIONS 61), (anon_sym_STAR_STAR, ACTIONS 345),
    (anon_sym_global, ACTIONS 63), (anon_sym_nonlocal, ACTIONS 65), (anon_sym_exec, ACTIONS 347),
    (anon_sym_type, ACTIONS 349), (anon_sym_mut, ACTIONS 339), (anon_sym_out, ACTIONS 339),
    (anon_sym_DASH, ACTIONS 79), (anon_sym_PLUS, ACTIONS 79), (anon_sym_ref, ACTIONS 81),
    (anon_sym_var, ACTIONS 81), (anon_sym_not, ACTIONS 83), (anon_sym_TILDE, ACTIONS 79),
    (anon_sym_lambda, ACTIONS 85), (anon_sym_yield, ACTIONS 87), (sym_ellipsis, ACTIONS 89),
    (anon_sym___mlir_type, ACTIONS 91), (sym_integer, ACTIONS 93), (sym_float, ACTIONS 89),
    (anon_sym_await, ACTIONS 351), (sym_true, ACTIONS 93), (sym_false, ACTIONS 93),
    (sym_none, ACTIONS 93), (sym_comment, ACTIONS 3), (sym_line_continuation, ACTIONS 3),
    (sym__newline, ACTIONS 689), (sym__indent, ACTIONS 691), (sym_string_start, ACTIONS 97)]"

definition parse_table_1014 :: "(nat \<times> nat) list" where "parse_table_1014 = [
    (sym__simple_statements, STATE 6356), (sym_import_statement, STATE 11814),
    (sym_future_import_statement, STATE 11814), (sym_import_from_statement, STATE 11814),
    (sym_print_statement, STATE 11814), (sym_assert_statement, STATE 11814),
    (sym_comptime_assert_statement, STATE 11814), (sym_expression_statement, STATE 11814),
    (sym_tuple_expression, STATE 12425), (sym_named_expression, STATE 7969),
    (sym__named_expression_lhs, STATE 12752), (sym_return_statement, STATE 11814),
    (sym_delete_statement, STATE 11814), (sym_raise_statement, STATE 11814),
    (sym_pass_statement, STATE 11814), (sym_break_statement, STATE 11814),
    (sym_continue_statement, STATE 11814), (sym_global_statement, STATE 11814),
    (sym_nonlocal_statement, STATE 11814), (sym_exec_statement, STATE 11814),
    (sym_type_alias_statement, STATE 11814), (sym_parameterized_alias_statement, STATE 11814),
    (sym_pattern, STATE 8086), (sym_tuple_pattern, STATE 8101), (sym_list_pattern, STATE 8101),
    (sym_list_splat_pattern, STATE 6795), (sym_as_pattern, STATE 7969),
    (sym_expression, STATE 9623), (sym_primary_expression, STATE 7326),
    (sym_comptime_expression, STATE 7017), (sym_transfer_expression, STATE 7017),
    (sym_not_operator, STATE 7969), (sym_boolean_operator, STATE 7969),
    (sym_binary_operator, STATE 7017), (sym_unary_operator, STATE 7017),
    (sym_comparison_operator, STATE 7969), (sym_lambda, STATE 7969),
    (sym_assignment, STATE 12425), (sym_augmented_assignment, STATE 12425),
    (sym_pattern_list, STATE 8578), (sym_yield, STATE 12425), (sym_attribute, STATE 6796),
    (sym_subscript, STATE 6797), (sym_call, STATE 6768), (sym_type, STATE 10130),
    (sym_called_type, STATE 9093), (sym_function_type, STATE 9093), (sym_splat_type, STATE 9093),
    (sym_generic_type, STATE 8287), (sym_union_type, STATE 9093),
    (sym_intersection_type, STATE 9093), (sym__intersection_operand, STATE 12294),
    (sym_constrained_type, STATE 9093), (sym_member_type, STATE 8165),
    (sym_mlir_type, STATE 7017), (sym_list, STATE 7017), (sym_set, STATE 7017),
    (sym_tuple, STATE 7017), (sym_dictionary, STATE 7017), (sym_struct_literal, STATE 7017),
    (sym_list_comprehension, STATE 7017), (sym_dictionary_comprehension, STATE 7017),
    (sym_set_comprehension, STATE 7017), (sym_generator_expression, STATE 7017),
    (sym_parenthesized_expression, STATE 7017), (sym_conditional_expression, STATE 7969),
    (sym_concatenated_string, STATE 7017), (sym_string, STATE 6729), (sym_await, STATE 7017),
    (sym_identifier, ACTIONS 327), (anon_sym_import, ACTIONS 11), (anon_sym_from, ACTIONS 13),
    (anon_sym_LPAREN, ACTIONS 329), (anon_sym_STAR, ACTIONS 331), (anon_sym_print, ACTIONS 333),
    (anon_sym_comptime, ACTIONS 335), (anon_sym_assert, ACTIONS 23),
    (anon_sym___comptime_assert, ACTIONS 25), (anon_sym_return, ACTIONS 27),
    (anon_sym_del, ACTIONS 29), (anon_sym_raise, ACTIONS 31), (anon_sym_pass, ACTIONS 33),
    (anon_sym_break, ACTIONS 35), (anon_sym_continue, ACTIONS 37), (anon_sym_match, ACTIONS 337),
    (anon_sym_async, ACTIONS 339), (anon_sym_def, ACTIONS 341), (anon_sym_LBRACK, ACTIONS 343),
    (anon_sym_LBRACE, ACTIONS 61), (anon_sym_STAR_STAR, ACTIONS 345),
    (anon_sym_global, ACTIONS 63), (anon_sym_nonlocal, ACTIONS 65), (anon_sym_exec, ACTIONS 347),
    (anon_sym_type, ACTIONS 349), (anon_sym_mut, ACTIONS 339), (anon_sym_out, ACTIONS 339),
    (anon_sym_DASH, ACTIONS 79), (anon_sym_PLUS, ACTIONS 79), (anon_sym_ref, ACTIONS 81),
    (anon_sym_var, ACTIONS 81), (anon_sym_not, ACTIONS 83), (anon_sym_TILDE, ACTIONS 79),
    (anon_sym_lambda, ACTIONS 85), (anon_sym_yield, ACTIONS 87), (sym_ellipsis, ACTIONS 89),
    (anon_sym___mlir_type, ACTIONS 91), (sym_integer, ACTIONS 93), (sym_float, ACTIONS 89),
    (anon_sym_await, ACTIONS 351), (sym_true, ACTIONS 93), (sym_false, ACTIONS 93),
    (sym_none, ACTIONS 93), (sym_comment, ACTIONS 3), (sym_line_continuation, ACTIONS 3),
    (sym__newline, ACTIONS 693), (sym__indent, ACTIONS 695), (sym_string_start, ACTIONS 97)]"

definition parse_table_1015 :: "(nat \<times> nat) list" where "parse_table_1015 = [
    (sym__simple_statements, STATE 5320), (sym_import_statement, STATE 12239),
    (sym_future_import_statement, STATE 12239), (sym_import_from_statement, STATE 12239),
    (sym_print_statement, STATE 12239), (sym_assert_statement, STATE 12239),
    (sym_comptime_assert_statement, STATE 12239), (sym_expression_statement, STATE 12239),
    (sym_tuple_expression, STATE 12425), (sym_named_expression, STATE 7969),
    (sym__named_expression_lhs, STATE 12752), (sym_return_statement, STATE 12239),
    (sym_delete_statement, STATE 12239), (sym_raise_statement, STATE 12239),
    (sym_pass_statement, STATE 12239), (sym_break_statement, STATE 12239),
    (sym_continue_statement, STATE 12239), (sym_global_statement, STATE 12239),
    (sym_nonlocal_statement, STATE 12239), (sym_exec_statement, STATE 12239),
    (sym_type_alias_statement, STATE 12239), (sym_parameterized_alias_statement, STATE 12239),
    (sym_pattern, STATE 8086), (sym_tuple_pattern, STATE 8101), (sym_list_pattern, STATE 8101),
    (sym_list_splat_pattern, STATE 6795), (sym_as_pattern, STATE 7969),
    (sym_expression, STATE 9623), (sym_primary_expression, STATE 7326),
    (sym_comptime_expression, STATE 7017), (sym_transfer_expression, STATE 7017),
    (sym_not_operator, STATE 7969), (sym_boolean_operator, STATE 7969),
    (sym_binary_operator, STATE 7017), (sym_unary_operator, STATE 7017),
    (sym_comparison_operator, STATE 7969), (sym_lambda, STATE 7969),
    (sym_assignment, STATE 12425), (sym_augmented_assignment, STATE 12425),
    (sym_pattern_list, STATE 8578), (sym_yield, STATE 12425), (sym_attribute, STATE 6796),
    (sym_subscript, STATE 6797), (sym_call, STATE 6768), (sym_type, STATE 10130),
    (sym_called_type, STATE 9093), (sym_function_type, STATE 9093), (sym_splat_type, STATE 9093),
    (sym_generic_type, STATE 8287), (sym_union_type, STATE 9093),
    (sym_intersection_type, STATE 9093), (sym__intersection_operand, STATE 12294),
    (sym_constrained_type, STATE 9093), (sym_member_type, STATE 8165),
    (sym_mlir_type, STATE 7017), (sym_list, STATE 7017), (sym_set, STATE 7017),
    (sym_tuple, STATE 7017), (sym_dictionary, STATE 7017), (sym_struct_literal, STATE 7017),
    (sym_list_comprehension, STATE 7017), (sym_dictionary_comprehension, STATE 7017),
    (sym_set_comprehension, STATE 7017), (sym_generator_expression, STATE 7017),
    (sym_parenthesized_expression, STATE 7017), (sym_conditional_expression, STATE 7969),
    (sym_concatenated_string, STATE 7017), (sym_string, STATE 6729), (sym_await, STATE 7017),
    (sym_identifier, ACTIONS 327), (anon_sym_import, ACTIONS 11), (anon_sym_from, ACTIONS 13),
    (anon_sym_LPAREN, ACTIONS 329), (anon_sym_STAR, ACTIONS 331), (anon_sym_print, ACTIONS 333),
    (anon_sym_comptime, ACTIONS 335), (anon_sym_assert, ACTIONS 23),
    (anon_sym___comptime_assert, ACTIONS 25), (anon_sym_return, ACTIONS 27),
    (anon_sym_del, ACTIONS 29), (anon_sym_raise, ACTIONS 31), (anon_sym_pass, ACTIONS 33),
    (anon_sym_break, ACTIONS 35), (anon_sym_continue, ACTIONS 37), (anon_sym_match, ACTIONS 337),
    (anon_sym_async, ACTIONS 339), (anon_sym_def, ACTIONS 341), (anon_sym_LBRACK, ACTIONS 343),
    (anon_sym_LBRACE, ACTIONS 61), (anon_sym_STAR_STAR, ACTIONS 345),
    (anon_sym_global, ACTIONS 63), (anon_sym_nonlocal, ACTIONS 65), (anon_sym_exec, ACTIONS 347),
    (anon_sym_type, ACTIONS 349), (anon_sym_mut, ACTIONS 339), (anon_sym_out, ACTIONS 339),
    (anon_sym_DASH, ACTIONS 79), (anon_sym_PLUS, ACTIONS 79), (anon_sym_ref, ACTIONS 81),
    (anon_sym_var, ACTIONS 81), (anon_sym_not, ACTIONS 83), (anon_sym_TILDE, ACTIONS 79),
    (anon_sym_lambda, ACTIONS 85), (anon_sym_yield, ACTIONS 87), (sym_ellipsis, ACTIONS 89),
    (anon_sym___mlir_type, ACTIONS 91), (sym_integer, ACTIONS 93), (sym_float, ACTIONS 89),
    (anon_sym_await, ACTIONS 351), (sym_true, ACTIONS 93), (sym_false, ACTIONS 93),
    (sym_none, ACTIONS 93), (sym_comment, ACTIONS 3), (sym_line_continuation, ACTIONS 3),
    (sym__newline, ACTIONS 697), (sym__indent, ACTIONS 699), (sym_string_start, ACTIONS 97)]"

definition parse_table_1016 :: "(nat \<times> nat) list" where "parse_table_1016 = [
    (sym__simple_statements, STATE 4802), (sym_import_statement, STATE 12239),
    (sym_future_import_statement, STATE 12239), (sym_import_from_statement, STATE 12239),
    (sym_print_statement, STATE 12239), (sym_assert_statement, STATE 12239),
    (sym_comptime_assert_statement, STATE 12239), (sym_expression_statement, STATE 12239),
    (sym_tuple_expression, STATE 12425), (sym_named_expression, STATE 7969),
    (sym__named_expression_lhs, STATE 12752), (sym_return_statement, STATE 12239),
    (sym_delete_statement, STATE 12239), (sym_raise_statement, STATE 12239),
    (sym_pass_statement, STATE 12239), (sym_break_statement, STATE 12239),
    (sym_continue_statement, STATE 12239), (sym_global_statement, STATE 12239),
    (sym_nonlocal_statement, STATE 12239), (sym_exec_statement, STATE 12239),
    (sym_type_alias_statement, STATE 12239), (sym_parameterized_alias_statement, STATE 12239),
    (sym_pattern, STATE 8086), (sym_tuple_pattern, STATE 8101), (sym_list_pattern, STATE 8101),
    (sym_list_splat_pattern, STATE 6795), (sym_as_pattern, STATE 7969),
    (sym_expression, STATE 9623), (sym_primary_expression, STATE 7326),
    (sym_comptime_expression, STATE 7017), (sym_transfer_expression, STATE 7017),
    (sym_not_operator, STATE 7969), (sym_boolean_operator, STATE 7969),
    (sym_binary_operator, STATE 7017), (sym_unary_operator, STATE 7017),
    (sym_comparison_operator, STATE 7969), (sym_lambda, STATE 7969),
    (sym_assignment, STATE 12425), (sym_augmented_assignment, STATE 12425),
    (sym_pattern_list, STATE 8578), (sym_yield, STATE 12425), (sym_attribute, STATE 6796),
    (sym_subscript, STATE 6797), (sym_call, STATE 6768), (sym_type, STATE 10130),
    (sym_called_type, STATE 9093), (sym_function_type, STATE 9093), (sym_splat_type, STATE 9093),
    (sym_generic_type, STATE 8287), (sym_union_type, STATE 9093),
    (sym_intersection_type, STATE 9093), (sym__intersection_operand, STATE 12294),
    (sym_constrained_type, STATE 9093), (sym_member_type, STATE 8165),
    (sym_mlir_type, STATE 7017), (sym_list, STATE 7017), (sym_set, STATE 7017),
    (sym_tuple, STATE 7017), (sym_dictionary, STATE 7017), (sym_struct_literal, STATE 7017),
    (sym_list_comprehension, STATE 7017), (sym_dictionary_comprehension, STATE 7017),
    (sym_set_comprehension, STATE 7017), (sym_generator_expression, STATE 7017),
    (sym_parenthesized_expression, STATE 7017), (sym_conditional_expression, STATE 7969),
    (sym_concatenated_string, STATE 7017), (sym_string, STATE 6729), (sym_await, STATE 7017),
    (sym_identifier, ACTIONS 327), (anon_sym_import, ACTIONS 11), (anon_sym_from, ACTIONS 13),
    (anon_sym_LPAREN, ACTIONS 329), (anon_sym_STAR, ACTIONS 331), (anon_sym_print, ACTIONS 333),
    (anon_sym_comptime, ACTIONS 335), (anon_sym_assert, ACTIONS 23),
    (anon_sym___comptime_assert, ACTIONS 25), (anon_sym_return, ACTIONS 27),
    (anon_sym_del, ACTIONS 29), (anon_sym_raise, ACTIONS 31), (anon_sym_pass, ACTIONS 33),
    (anon_sym_break, ACTIONS 35), (anon_sym_continue, ACTIONS 37), (anon_sym_match, ACTIONS 337),
    (anon_sym_async, ACTIONS 339), (anon_sym_def, ACTIONS 341), (anon_sym_LBRACK, ACTIONS 343),
    (anon_sym_LBRACE, ACTIONS 61), (anon_sym_STAR_STAR, ACTIONS 345),
    (anon_sym_global, ACTIONS 63), (anon_sym_nonlocal, ACTIONS 65), (anon_sym_exec, ACTIONS 347),
    (anon_sym_type, ACTIONS 349), (anon_sym_mut, ACTIONS 339), (anon_sym_out, ACTIONS 339),
    (anon_sym_DASH, ACTIONS 79), (anon_sym_PLUS, ACTIONS 79), (anon_sym_ref, ACTIONS 81),
    (anon_sym_var, ACTIONS 81), (anon_sym_not, ACTIONS 83), (anon_sym_TILDE, ACTIONS 79),
    (anon_sym_lambda, ACTIONS 85), (anon_sym_yield, ACTIONS 87), (sym_ellipsis, ACTIONS 89),
    (anon_sym___mlir_type, ACTIONS 91), (sym_integer, ACTIONS 93), (sym_float, ACTIONS 89),
    (anon_sym_await, ACTIONS 351), (sym_true, ACTIONS 93), (sym_false, ACTIONS 93),
    (sym_none, ACTIONS 93), (sym_comment, ACTIONS 3), (sym_line_continuation, ACTIONS 3),
    (sym__newline, ACTIONS 701), (sym__indent, ACTIONS 703), (sym_string_start, ACTIONS 97)]"

definition parse_table_1017 :: "(nat \<times> nat) list" where "parse_table_1017 = [
    (sym__simple_statements, STATE 5069), (sym_import_statement, STATE 12239),
    (sym_future_import_statement, STATE 12239), (sym_import_from_statement, STATE 12239),
    (sym_print_statement, STATE 12239), (sym_assert_statement, STATE 12239),
    (sym_comptime_assert_statement, STATE 12239), (sym_expression_statement, STATE 12239),
    (sym_tuple_expression, STATE 12425), (sym_named_expression, STATE 7969),
    (sym__named_expression_lhs, STATE 12752), (sym_return_statement, STATE 12239),
    (sym_delete_statement, STATE 12239), (sym_raise_statement, STATE 12239),
    (sym_pass_statement, STATE 12239), (sym_break_statement, STATE 12239),
    (sym_continue_statement, STATE 12239), (sym_global_statement, STATE 12239),
    (sym_nonlocal_statement, STATE 12239), (sym_exec_statement, STATE 12239),
    (sym_type_alias_statement, STATE 12239), (sym_parameterized_alias_statement, STATE 12239),
    (sym_pattern, STATE 8086), (sym_tuple_pattern, STATE 8101), (sym_list_pattern, STATE 8101),
    (sym_list_splat_pattern, STATE 6795), (sym_as_pattern, STATE 7969),
    (sym_expression, STATE 9623), (sym_primary_expression, STATE 7326),
    (sym_comptime_expression, STATE 7017), (sym_transfer_expression, STATE 7017),
    (sym_not_operator, STATE 7969), (sym_boolean_operator, STATE 7969),
    (sym_binary_operator, STATE 7017), (sym_unary_operator, STATE 7017),
    (sym_comparison_operator, STATE 7969), (sym_lambda, STATE 7969),
    (sym_assignment, STATE 12425), (sym_augmented_assignment, STATE 12425),
    (sym_pattern_list, STATE 8578), (sym_yield, STATE 12425), (sym_attribute, STATE 6796),
    (sym_subscript, STATE 6797), (sym_call, STATE 6768), (sym_type, STATE 10130),
    (sym_called_type, STATE 9093), (sym_function_type, STATE 9093), (sym_splat_type, STATE 9093),
    (sym_generic_type, STATE 8287), (sym_union_type, STATE 9093),
    (sym_intersection_type, STATE 9093), (sym__intersection_operand, STATE 12294),
    (sym_constrained_type, STATE 9093), (sym_member_type, STATE 8165),
    (sym_mlir_type, STATE 7017), (sym_list, STATE 7017), (sym_set, STATE 7017),
    (sym_tuple, STATE 7017), (sym_dictionary, STATE 7017), (sym_struct_literal, STATE 7017),
    (sym_list_comprehension, STATE 7017), (sym_dictionary_comprehension, STATE 7017),
    (sym_set_comprehension, STATE 7017), (sym_generator_expression, STATE 7017),
    (sym_parenthesized_expression, STATE 7017), (sym_conditional_expression, STATE 7969),
    (sym_concatenated_string, STATE 7017), (sym_string, STATE 6729), (sym_await, STATE 7017),
    (sym_identifier, ACTIONS 327), (anon_sym_import, ACTIONS 11), (anon_sym_from, ACTIONS 13),
    (anon_sym_LPAREN, ACTIONS 329), (anon_sym_STAR, ACTIONS 331), (anon_sym_print, ACTIONS 333),
    (anon_sym_comptime, ACTIONS 335), (anon_sym_assert, ACTIONS 23),
    (anon_sym___comptime_assert, ACTIONS 25), (anon_sym_return, ACTIONS 27),
    (anon_sym_del, ACTIONS 29), (anon_sym_raise, ACTIONS 31), (anon_sym_pass, ACTIONS 33),
    (anon_sym_break, ACTIONS 35), (anon_sym_continue, ACTIONS 37), (anon_sym_match, ACTIONS 337),
    (anon_sym_async, ACTIONS 339), (anon_sym_def, ACTIONS 341), (anon_sym_LBRACK, ACTIONS 343),
    (anon_sym_LBRACE, ACTIONS 61), (anon_sym_STAR_STAR, ACTIONS 345),
    (anon_sym_global, ACTIONS 63), (anon_sym_nonlocal, ACTIONS 65), (anon_sym_exec, ACTIONS 347),
    (anon_sym_type, ACTIONS 349), (anon_sym_mut, ACTIONS 339), (anon_sym_out, ACTIONS 339),
    (anon_sym_DASH, ACTIONS 79), (anon_sym_PLUS, ACTIONS 79), (anon_sym_ref, ACTIONS 81),
    (anon_sym_var, ACTIONS 81), (anon_sym_not, ACTIONS 83), (anon_sym_TILDE, ACTIONS 79),
    (anon_sym_lambda, ACTIONS 85), (anon_sym_yield, ACTIONS 87), (sym_ellipsis, ACTIONS 89),
    (anon_sym___mlir_type, ACTIONS 91), (sym_integer, ACTIONS 93), (sym_float, ACTIONS 89),
    (anon_sym_await, ACTIONS 351), (sym_true, ACTIONS 93), (sym_false, ACTIONS 93),
    (sym_none, ACTIONS 93), (sym_comment, ACTIONS 3), (sym_line_continuation, ACTIONS 3),
    (sym__newline, ACTIONS 705), (sym__indent, ACTIONS 707), (sym_string_start, ACTIONS 97)]"

definition parse_table_1018 :: "(nat \<times> nat) list" where "parse_table_1018 = [
    (sym__simple_statements, STATE 5915), (sym_import_statement, STATE 12239),
    (sym_future_import_statement, STATE 12239), (sym_import_from_statement, STATE 12239),
    (sym_print_statement, STATE 12239), (sym_assert_statement, STATE 12239),
    (sym_comptime_assert_statement, STATE 12239), (sym_expression_statement, STATE 12239),
    (sym_tuple_expression, STATE 12425), (sym_named_expression, STATE 7969),
    (sym__named_expression_lhs, STATE 12752), (sym_return_statement, STATE 12239),
    (sym_delete_statement, STATE 12239), (sym_raise_statement, STATE 12239),
    (sym_pass_statement, STATE 12239), (sym_break_statement, STATE 12239),
    (sym_continue_statement, STATE 12239), (sym_global_statement, STATE 12239),
    (sym_nonlocal_statement, STATE 12239), (sym_exec_statement, STATE 12239),
    (sym_type_alias_statement, STATE 12239), (sym_parameterized_alias_statement, STATE 12239),
    (sym_pattern, STATE 8086), (sym_tuple_pattern, STATE 8101), (sym_list_pattern, STATE 8101),
    (sym_list_splat_pattern, STATE 6795), (sym_as_pattern, STATE 7969),
    (sym_expression, STATE 9623), (sym_primary_expression, STATE 7326),
    (sym_comptime_expression, STATE 7017), (sym_transfer_expression, STATE 7017),
    (sym_not_operator, STATE 7969), (sym_boolean_operator, STATE 7969),
    (sym_binary_operator, STATE 7017), (sym_unary_operator, STATE 7017),
    (sym_comparison_operator, STATE 7969), (sym_lambda, STATE 7969),
    (sym_assignment, STATE 12425), (sym_augmented_assignment, STATE 12425),
    (sym_pattern_list, STATE 8578), (sym_yield, STATE 12425), (sym_attribute, STATE 6796),
    (sym_subscript, STATE 6797), (sym_call, STATE 6768), (sym_type, STATE 10130),
    (sym_called_type, STATE 9093), (sym_function_type, STATE 9093), (sym_splat_type, STATE 9093),
    (sym_generic_type, STATE 8287), (sym_union_type, STATE 9093),
    (sym_intersection_type, STATE 9093), (sym__intersection_operand, STATE 12294),
    (sym_constrained_type, STATE 9093), (sym_member_type, STATE 8165),
    (sym_mlir_type, STATE 7017), (sym_list, STATE 7017), (sym_set, STATE 7017),
    (sym_tuple, STATE 7017), (sym_dictionary, STATE 7017), (sym_struct_literal, STATE 7017),
    (sym_list_comprehension, STATE 7017), (sym_dictionary_comprehension, STATE 7017),
    (sym_set_comprehension, STATE 7017), (sym_generator_expression, STATE 7017),
    (sym_parenthesized_expression, STATE 7017), (sym_conditional_expression, STATE 7969),
    (sym_concatenated_string, STATE 7017), (sym_string, STATE 6729), (sym_await, STATE 7017),
    (sym_identifier, ACTIONS 327), (anon_sym_import, ACTIONS 11), (anon_sym_from, ACTIONS 13),
    (anon_sym_LPAREN, ACTIONS 329), (anon_sym_STAR, ACTIONS 331), (anon_sym_print, ACTIONS 333),
    (anon_sym_comptime, ACTIONS 335), (anon_sym_assert, ACTIONS 23),
    (anon_sym___comptime_assert, ACTIONS 25), (anon_sym_return, ACTIONS 27),
    (anon_sym_del, ACTIONS 29), (anon_sym_raise, ACTIONS 31), (anon_sym_pass, ACTIONS 33),
    (anon_sym_break, ACTIONS 35), (anon_sym_continue, ACTIONS 37), (anon_sym_match, ACTIONS 337),
    (anon_sym_async, ACTIONS 339), (anon_sym_def, ACTIONS 341), (anon_sym_LBRACK, ACTIONS 343),
    (anon_sym_LBRACE, ACTIONS 61), (anon_sym_STAR_STAR, ACTIONS 345),
    (anon_sym_global, ACTIONS 63), (anon_sym_nonlocal, ACTIONS 65), (anon_sym_exec, ACTIONS 347),
    (anon_sym_type, ACTIONS 349), (anon_sym_mut, ACTIONS 339), (anon_sym_out, ACTIONS 339),
    (anon_sym_DASH, ACTIONS 79), (anon_sym_PLUS, ACTIONS 79), (anon_sym_ref, ACTIONS 81),
    (anon_sym_var, ACTIONS 81), (anon_sym_not, ACTIONS 83), (anon_sym_TILDE, ACTIONS 79),
    (anon_sym_lambda, ACTIONS 85), (anon_sym_yield, ACTIONS 87), (sym_ellipsis, ACTIONS 89),
    (anon_sym___mlir_type, ACTIONS 91), (sym_integer, ACTIONS 93), (sym_float, ACTIONS 89),
    (anon_sym_await, ACTIONS 351), (sym_true, ACTIONS 93), (sym_false, ACTIONS 93),
    (sym_none, ACTIONS 93), (sym_comment, ACTIONS 3), (sym_line_continuation, ACTIONS 3),
    (sym__newline, ACTIONS 709), (sym__indent, ACTIONS 711), (sym_string_start, ACTIONS 97)]"

definition parse_table_1019 :: "(nat \<times> nat) list" where "parse_table_1019 = [
    (sym__simple_statements, STATE 5544), (sym_import_statement, STATE 11814),
    (sym_future_import_statement, STATE 11814), (sym_import_from_statement, STATE 11814),
    (sym_print_statement, STATE 11814), (sym_assert_statement, STATE 11814),
    (sym_comptime_assert_statement, STATE 11814), (sym_expression_statement, STATE 11814),
    (sym_tuple_expression, STATE 12425), (sym_named_expression, STATE 7969),
    (sym__named_expression_lhs, STATE 12752), (sym_return_statement, STATE 11814),
    (sym_delete_statement, STATE 11814), (sym_raise_statement, STATE 11814),
    (sym_pass_statement, STATE 11814), (sym_break_statement, STATE 11814),
    (sym_continue_statement, STATE 11814), (sym_global_statement, STATE 11814),
    (sym_nonlocal_statement, STATE 11814), (sym_exec_statement, STATE 11814),
    (sym_type_alias_statement, STATE 11814), (sym_parameterized_alias_statement, STATE 11814),
    (sym_pattern, STATE 8086), (sym_tuple_pattern, STATE 8101), (sym_list_pattern, STATE 8101),
    (sym_list_splat_pattern, STATE 6795), (sym_as_pattern, STATE 7969),
    (sym_expression, STATE 9623), (sym_primary_expression, STATE 7326),
    (sym_comptime_expression, STATE 7017), (sym_transfer_expression, STATE 7017),
    (sym_not_operator, STATE 7969), (sym_boolean_operator, STATE 7969),
    (sym_binary_operator, STATE 7017), (sym_unary_operator, STATE 7017),
    (sym_comparison_operator, STATE 7969), (sym_lambda, STATE 7969),
    (sym_assignment, STATE 12425), (sym_augmented_assignment, STATE 12425),
    (sym_pattern_list, STATE 8578), (sym_yield, STATE 12425), (sym_attribute, STATE 6796),
    (sym_subscript, STATE 6797), (sym_call, STATE 6768), (sym_type, STATE 10130),
    (sym_called_type, STATE 9093), (sym_function_type, STATE 9093), (sym_splat_type, STATE 9093),
    (sym_generic_type, STATE 8287), (sym_union_type, STATE 9093),
    (sym_intersection_type, STATE 9093), (sym__intersection_operand, STATE 12294),
    (sym_constrained_type, STATE 9093), (sym_member_type, STATE 8165),
    (sym_mlir_type, STATE 7017), (sym_list, STATE 7017), (sym_set, STATE 7017),
    (sym_tuple, STATE 7017), (sym_dictionary, STATE 7017), (sym_struct_literal, STATE 7017),
    (sym_list_comprehension, STATE 7017), (sym_dictionary_comprehension, STATE 7017),
    (sym_set_comprehension, STATE 7017), (sym_generator_expression, STATE 7017),
    (sym_parenthesized_expression, STATE 7017), (sym_conditional_expression, STATE 7969),
    (sym_concatenated_string, STATE 7017), (sym_string, STATE 6729), (sym_await, STATE 7017),
    (sym_identifier, ACTIONS 327), (anon_sym_import, ACTIONS 11), (anon_sym_from, ACTIONS 13),
    (anon_sym_LPAREN, ACTIONS 329), (anon_sym_STAR, ACTIONS 331), (anon_sym_print, ACTIONS 333),
    (anon_sym_comptime, ACTIONS 335), (anon_sym_assert, ACTIONS 23),
    (anon_sym___comptime_assert, ACTIONS 25), (anon_sym_return, ACTIONS 27),
    (anon_sym_del, ACTIONS 29), (anon_sym_raise, ACTIONS 31), (anon_sym_pass, ACTIONS 33),
    (anon_sym_break, ACTIONS 35), (anon_sym_continue, ACTIONS 37), (anon_sym_match, ACTIONS 337),
    (anon_sym_async, ACTIONS 339), (anon_sym_def, ACTIONS 341), (anon_sym_LBRACK, ACTIONS 343),
    (anon_sym_LBRACE, ACTIONS 61), (anon_sym_STAR_STAR, ACTIONS 345),
    (anon_sym_global, ACTIONS 63), (anon_sym_nonlocal, ACTIONS 65), (anon_sym_exec, ACTIONS 347),
    (anon_sym_type, ACTIONS 349), (anon_sym_mut, ACTIONS 339), (anon_sym_out, ACTIONS 339),
    (anon_sym_DASH, ACTIONS 79), (anon_sym_PLUS, ACTIONS 79), (anon_sym_ref, ACTIONS 81),
    (anon_sym_var, ACTIONS 81), (anon_sym_not, ACTIONS 83), (anon_sym_TILDE, ACTIONS 79),
    (anon_sym_lambda, ACTIONS 85), (anon_sym_yield, ACTIONS 87), (sym_ellipsis, ACTIONS 89),
    (anon_sym___mlir_type, ACTIONS 91), (sym_integer, ACTIONS 93), (sym_float, ACTIONS 89),
    (anon_sym_await, ACTIONS 351), (sym_true, ACTIONS 93), (sym_false, ACTIONS 93),
    (sym_none, ACTIONS 93), (sym_comment, ACTIONS 3), (sym_line_continuation, ACTIONS 3),
    (sym__newline, ACTIONS 713), (sym__indent, ACTIONS 715), (sym_string_start, ACTIONS 97)]"

definition parse_table_1020 :: "(nat \<times> nat) list" where "parse_table_1020 = [
    (sym__simple_statements, STATE 6378), (sym_import_statement, STATE 11814),
    (sym_future_import_statement, STATE 11814), (sym_import_from_statement, STATE 11814),
    (sym_print_statement, STATE 11814), (sym_assert_statement, STATE 11814),
    (sym_comptime_assert_statement, STATE 11814), (sym_expression_statement, STATE 11814),
    (sym_tuple_expression, STATE 12425), (sym_named_expression, STATE 7969),
    (sym__named_expression_lhs, STATE 12752), (sym_return_statement, STATE 11814),
    (sym_delete_statement, STATE 11814), (sym_raise_statement, STATE 11814),
    (sym_pass_statement, STATE 11814), (sym_break_statement, STATE 11814),
    (sym_continue_statement, STATE 11814), (sym_global_statement, STATE 11814),
    (sym_nonlocal_statement, STATE 11814), (sym_exec_statement, STATE 11814),
    (sym_type_alias_statement, STATE 11814), (sym_parameterized_alias_statement, STATE 11814),
    (sym_pattern, STATE 8086), (sym_tuple_pattern, STATE 8101), (sym_list_pattern, STATE 8101),
    (sym_list_splat_pattern, STATE 6795), (sym_as_pattern, STATE 7969),
    (sym_expression, STATE 9623), (sym_primary_expression, STATE 7326),
    (sym_comptime_expression, STATE 7017), (sym_transfer_expression, STATE 7017),
    (sym_not_operator, STATE 7969), (sym_boolean_operator, STATE 7969),
    (sym_binary_operator, STATE 7017), (sym_unary_operator, STATE 7017),
    (sym_comparison_operator, STATE 7969), (sym_lambda, STATE 7969),
    (sym_assignment, STATE 12425), (sym_augmented_assignment, STATE 12425),
    (sym_pattern_list, STATE 8578), (sym_yield, STATE 12425), (sym_attribute, STATE 6796),
    (sym_subscript, STATE 6797), (sym_call, STATE 6768), (sym_type, STATE 10130),
    (sym_called_type, STATE 9093), (sym_function_type, STATE 9093), (sym_splat_type, STATE 9093),
    (sym_generic_type, STATE 8287), (sym_union_type, STATE 9093),
    (sym_intersection_type, STATE 9093), (sym__intersection_operand, STATE 12294),
    (sym_constrained_type, STATE 9093), (sym_member_type, STATE 8165),
    (sym_mlir_type, STATE 7017), (sym_list, STATE 7017), (sym_set, STATE 7017),
    (sym_tuple, STATE 7017), (sym_dictionary, STATE 7017), (sym_struct_literal, STATE 7017),
    (sym_list_comprehension, STATE 7017), (sym_dictionary_comprehension, STATE 7017),
    (sym_set_comprehension, STATE 7017), (sym_generator_expression, STATE 7017),
    (sym_parenthesized_expression, STATE 7017), (sym_conditional_expression, STATE 7969),
    (sym_concatenated_string, STATE 7017), (sym_string, STATE 6729), (sym_await, STATE 7017),
    (sym_identifier, ACTIONS 327), (anon_sym_import, ACTIONS 11), (anon_sym_from, ACTIONS 13),
    (anon_sym_LPAREN, ACTIONS 329), (anon_sym_STAR, ACTIONS 331), (anon_sym_print, ACTIONS 333),
    (anon_sym_comptime, ACTIONS 335), (anon_sym_assert, ACTIONS 23),
    (anon_sym___comptime_assert, ACTIONS 25), (anon_sym_return, ACTIONS 27),
    (anon_sym_del, ACTIONS 29), (anon_sym_raise, ACTIONS 31), (anon_sym_pass, ACTIONS 33),
    (anon_sym_break, ACTIONS 35), (anon_sym_continue, ACTIONS 37), (anon_sym_match, ACTIONS 337),
    (anon_sym_async, ACTIONS 339), (anon_sym_def, ACTIONS 341), (anon_sym_LBRACK, ACTIONS 343),
    (anon_sym_LBRACE, ACTIONS 61), (anon_sym_STAR_STAR, ACTIONS 345),
    (anon_sym_global, ACTIONS 63), (anon_sym_nonlocal, ACTIONS 65), (anon_sym_exec, ACTIONS 347),
    (anon_sym_type, ACTIONS 349), (anon_sym_mut, ACTIONS 339), (anon_sym_out, ACTIONS 339),
    (anon_sym_DASH, ACTIONS 79), (anon_sym_PLUS, ACTIONS 79), (anon_sym_ref, ACTIONS 81),
    (anon_sym_var, ACTIONS 81), (anon_sym_not, ACTIONS 83), (anon_sym_TILDE, ACTIONS 79),
    (anon_sym_lambda, ACTIONS 85), (anon_sym_yield, ACTIONS 87), (sym_ellipsis, ACTIONS 89),
    (anon_sym___mlir_type, ACTIONS 91), (sym_integer, ACTIONS 93), (sym_float, ACTIONS 89),
    (anon_sym_await, ACTIONS 351), (sym_true, ACTIONS 93), (sym_false, ACTIONS 93),
    (sym_none, ACTIONS 93), (sym_comment, ACTIONS 3), (sym_line_continuation, ACTIONS 3),
    (sym__newline, ACTIONS 717), (sym__indent, ACTIONS 719), (sym_string_start, ACTIONS 97)]"

definition parse_table_1021 :: "(nat \<times> nat) list" where "parse_table_1021 = [
    (sym__simple_statements, STATE 6697), (sym_import_statement, STATE 12239),
    (sym_future_import_statement, STATE 12239), (sym_import_from_statement, STATE 12239),
    (sym_print_statement, STATE 12239), (sym_assert_statement, STATE 12239),
    (sym_comptime_assert_statement, STATE 12239), (sym_expression_statement, STATE 12239),
    (sym_tuple_expression, STATE 12425), (sym_named_expression, STATE 7969),
    (sym__named_expression_lhs, STATE 12752), (sym_return_statement, STATE 12239),
    (sym_delete_statement, STATE 12239), (sym_raise_statement, STATE 12239),
    (sym_pass_statement, STATE 12239), (sym_break_statement, STATE 12239),
    (sym_continue_statement, STATE 12239), (sym_global_statement, STATE 12239),
    (sym_nonlocal_statement, STATE 12239), (sym_exec_statement, STATE 12239),
    (sym_type_alias_statement, STATE 12239), (sym_parameterized_alias_statement, STATE 12239),
    (sym_pattern, STATE 8086), (sym_tuple_pattern, STATE 8101), (sym_list_pattern, STATE 8101),
    (sym_list_splat_pattern, STATE 6795), (sym_as_pattern, STATE 7969),
    (sym_expression, STATE 9623), (sym_primary_expression, STATE 7326),
    (sym_comptime_expression, STATE 7017), (sym_transfer_expression, STATE 7017),
    (sym_not_operator, STATE 7969), (sym_boolean_operator, STATE 7969),
    (sym_binary_operator, STATE 7017), (sym_unary_operator, STATE 7017),
    (sym_comparison_operator, STATE 7969), (sym_lambda, STATE 7969),
    (sym_assignment, STATE 12425), (sym_augmented_assignment, STATE 12425),
    (sym_pattern_list, STATE 8578), (sym_yield, STATE 12425), (sym_attribute, STATE 6796),
    (sym_subscript, STATE 6797), (sym_call, STATE 6768), (sym_type, STATE 10130),
    (sym_called_type, STATE 9093), (sym_function_type, STATE 9093), (sym_splat_type, STATE 9093),
    (sym_generic_type, STATE 8287), (sym_union_type, STATE 9093),
    (sym_intersection_type, STATE 9093), (sym__intersection_operand, STATE 12294),
    (sym_constrained_type, STATE 9093), (sym_member_type, STATE 8165),
    (sym_mlir_type, STATE 7017), (sym_list, STATE 7017), (sym_set, STATE 7017),
    (sym_tuple, STATE 7017), (sym_dictionary, STATE 7017), (sym_struct_literal, STATE 7017),
    (sym_list_comprehension, STATE 7017), (sym_dictionary_comprehension, STATE 7017),
    (sym_set_comprehension, STATE 7017), (sym_generator_expression, STATE 7017),
    (sym_parenthesized_expression, STATE 7017), (sym_conditional_expression, STATE 7969),
    (sym_concatenated_string, STATE 7017), (sym_string, STATE 6729), (sym_await, STATE 7017),
    (sym_identifier, ACTIONS 327), (anon_sym_import, ACTIONS 11), (anon_sym_from, ACTIONS 13),
    (anon_sym_LPAREN, ACTIONS 329), (anon_sym_STAR, ACTIONS 331), (anon_sym_print, ACTIONS 333),
    (anon_sym_comptime, ACTIONS 335), (anon_sym_assert, ACTIONS 23),
    (anon_sym___comptime_assert, ACTIONS 25), (anon_sym_return, ACTIONS 27),
    (anon_sym_del, ACTIONS 29), (anon_sym_raise, ACTIONS 31), (anon_sym_pass, ACTIONS 33),
    (anon_sym_break, ACTIONS 35), (anon_sym_continue, ACTIONS 37), (anon_sym_match, ACTIONS 337),
    (anon_sym_async, ACTIONS 339), (anon_sym_def, ACTIONS 341), (anon_sym_LBRACK, ACTIONS 343),
    (anon_sym_LBRACE, ACTIONS 61), (anon_sym_STAR_STAR, ACTIONS 345),
    (anon_sym_global, ACTIONS 63), (anon_sym_nonlocal, ACTIONS 65), (anon_sym_exec, ACTIONS 347),
    (anon_sym_type, ACTIONS 349), (anon_sym_mut, ACTIONS 339), (anon_sym_out, ACTIONS 339),
    (anon_sym_DASH, ACTIONS 79), (anon_sym_PLUS, ACTIONS 79), (anon_sym_ref, ACTIONS 81),
    (anon_sym_var, ACTIONS 81), (anon_sym_not, ACTIONS 83), (anon_sym_TILDE, ACTIONS 79),
    (anon_sym_lambda, ACTIONS 85), (anon_sym_yield, ACTIONS 87), (sym_ellipsis, ACTIONS 89),
    (anon_sym___mlir_type, ACTIONS 91), (sym_integer, ACTIONS 93), (sym_float, ACTIONS 89),
    (anon_sym_await, ACTIONS 351), (sym_true, ACTIONS 93), (sym_false, ACTIONS 93),
    (sym_none, ACTIONS 93), (sym_comment, ACTIONS 3), (sym_line_continuation, ACTIONS 3),
    (sym__newline, ACTIONS 721), (sym__indent, ACTIONS 723), (sym_string_start, ACTIONS 97)]"

definition parse_table_1022 :: "(nat \<times> nat) list" where "parse_table_1022 = [
    (sym__simple_statements, STATE 6385), (sym_import_statement, STATE 11814),
    (sym_future_import_statement, STATE 11814), (sym_import_from_statement, STATE 11814),
    (sym_print_statement, STATE 11814), (sym_assert_statement, STATE 11814),
    (sym_comptime_assert_statement, STATE 11814), (sym_expression_statement, STATE 11814),
    (sym_tuple_expression, STATE 12425), (sym_named_expression, STATE 7969),
    (sym__named_expression_lhs, STATE 12752), (sym_return_statement, STATE 11814),
    (sym_delete_statement, STATE 11814), (sym_raise_statement, STATE 11814),
    (sym_pass_statement, STATE 11814), (sym_break_statement, STATE 11814),
    (sym_continue_statement, STATE 11814), (sym_global_statement, STATE 11814),
    (sym_nonlocal_statement, STATE 11814), (sym_exec_statement, STATE 11814),
    (sym_type_alias_statement, STATE 11814), (sym_parameterized_alias_statement, STATE 11814),
    (sym_pattern, STATE 8086), (sym_tuple_pattern, STATE 8101), (sym_list_pattern, STATE 8101),
    (sym_list_splat_pattern, STATE 6795), (sym_as_pattern, STATE 7969),
    (sym_expression, STATE 9623), (sym_primary_expression, STATE 7326),
    (sym_comptime_expression, STATE 7017), (sym_transfer_expression, STATE 7017),
    (sym_not_operator, STATE 7969), (sym_boolean_operator, STATE 7969),
    (sym_binary_operator, STATE 7017), (sym_unary_operator, STATE 7017),
    (sym_comparison_operator, STATE 7969), (sym_lambda, STATE 7969),
    (sym_assignment, STATE 12425), (sym_augmented_assignment, STATE 12425),
    (sym_pattern_list, STATE 8578), (sym_yield, STATE 12425), (sym_attribute, STATE 6796),
    (sym_subscript, STATE 6797), (sym_call, STATE 6768), (sym_type, STATE 10130),
    (sym_called_type, STATE 9093), (sym_function_type, STATE 9093), (sym_splat_type, STATE 9093),
    (sym_generic_type, STATE 8287), (sym_union_type, STATE 9093),
    (sym_intersection_type, STATE 9093), (sym__intersection_operand, STATE 12294),
    (sym_constrained_type, STATE 9093), (sym_member_type, STATE 8165),
    (sym_mlir_type, STATE 7017), (sym_list, STATE 7017), (sym_set, STATE 7017),
    (sym_tuple, STATE 7017), (sym_dictionary, STATE 7017), (sym_struct_literal, STATE 7017),
    (sym_list_comprehension, STATE 7017), (sym_dictionary_comprehension, STATE 7017),
    (sym_set_comprehension, STATE 7017), (sym_generator_expression, STATE 7017),
    (sym_parenthesized_expression, STATE 7017), (sym_conditional_expression, STATE 7969),
    (sym_concatenated_string, STATE 7017), (sym_string, STATE 6729), (sym_await, STATE 7017),
    (sym_identifier, ACTIONS 327), (anon_sym_import, ACTIONS 11), (anon_sym_from, ACTIONS 13),
    (anon_sym_LPAREN, ACTIONS 329), (anon_sym_STAR, ACTIONS 331), (anon_sym_print, ACTIONS 333),
    (anon_sym_comptime, ACTIONS 335), (anon_sym_assert, ACTIONS 23),
    (anon_sym___comptime_assert, ACTIONS 25), (anon_sym_return, ACTIONS 27),
    (anon_sym_del, ACTIONS 29), (anon_sym_raise, ACTIONS 31), (anon_sym_pass, ACTIONS 33),
    (anon_sym_break, ACTIONS 35), (anon_sym_continue, ACTIONS 37), (anon_sym_match, ACTIONS 337),
    (anon_sym_async, ACTIONS 339), (anon_sym_def, ACTIONS 341), (anon_sym_LBRACK, ACTIONS 343),
    (anon_sym_LBRACE, ACTIONS 61), (anon_sym_STAR_STAR, ACTIONS 345),
    (anon_sym_global, ACTIONS 63), (anon_sym_nonlocal, ACTIONS 65), (anon_sym_exec, ACTIONS 347),
    (anon_sym_type, ACTIONS 349), (anon_sym_mut, ACTIONS 339), (anon_sym_out, ACTIONS 339),
    (anon_sym_DASH, ACTIONS 79), (anon_sym_PLUS, ACTIONS 79), (anon_sym_ref, ACTIONS 81),
    (anon_sym_var, ACTIONS 81), (anon_sym_not, ACTIONS 83), (anon_sym_TILDE, ACTIONS 79),
    (anon_sym_lambda, ACTIONS 85), (anon_sym_yield, ACTIONS 87), (sym_ellipsis, ACTIONS 89),
    (anon_sym___mlir_type, ACTIONS 91), (sym_integer, ACTIONS 93), (sym_float, ACTIONS 89),
    (anon_sym_await, ACTIONS 351), (sym_true, ACTIONS 93), (sym_false, ACTIONS 93),
    (sym_none, ACTIONS 93), (sym_comment, ACTIONS 3), (sym_line_continuation, ACTIONS 3),
    (sym__newline, ACTIONS 725), (sym__indent, ACTIONS 727), (sym_string_start, ACTIONS 97)]"

definition parse_table_1023 :: "(nat \<times> nat) list" where "parse_table_1023 = [
    (sym__simple_statements, STATE 6390), (sym_import_statement, STATE 11814),
    (sym_future_import_statement, STATE 11814), (sym_import_from_statement, STATE 11814),
    (sym_print_statement, STATE 11814), (sym_assert_statement, STATE 11814),
    (sym_comptime_assert_statement, STATE 11814), (sym_expression_statement, STATE 11814),
    (sym_tuple_expression, STATE 12425), (sym_named_expression, STATE 7969),
    (sym__named_expression_lhs, STATE 12752), (sym_return_statement, STATE 11814),
    (sym_delete_statement, STATE 11814), (sym_raise_statement, STATE 11814),
    (sym_pass_statement, STATE 11814), (sym_break_statement, STATE 11814),
    (sym_continue_statement, STATE 11814), (sym_global_statement, STATE 11814),
    (sym_nonlocal_statement, STATE 11814), (sym_exec_statement, STATE 11814),
    (sym_type_alias_statement, STATE 11814), (sym_parameterized_alias_statement, STATE 11814),
    (sym_pattern, STATE 8086), (sym_tuple_pattern, STATE 8101), (sym_list_pattern, STATE 8101),
    (sym_list_splat_pattern, STATE 6795), (sym_as_pattern, STATE 7969),
    (sym_expression, STATE 9623), (sym_primary_expression, STATE 7326),
    (sym_comptime_expression, STATE 7017), (sym_transfer_expression, STATE 7017),
    (sym_not_operator, STATE 7969), (sym_boolean_operator, STATE 7969),
    (sym_binary_operator, STATE 7017), (sym_unary_operator, STATE 7017),
    (sym_comparison_operator, STATE 7969), (sym_lambda, STATE 7969),
    (sym_assignment, STATE 12425), (sym_augmented_assignment, STATE 12425),
    (sym_pattern_list, STATE 8578), (sym_yield, STATE 12425), (sym_attribute, STATE 6796),
    (sym_subscript, STATE 6797), (sym_call, STATE 6768), (sym_type, STATE 10130),
    (sym_called_type, STATE 9093), (sym_function_type, STATE 9093), (sym_splat_type, STATE 9093),
    (sym_generic_type, STATE 8287), (sym_union_type, STATE 9093),
    (sym_intersection_type, STATE 9093), (sym__intersection_operand, STATE 12294),
    (sym_constrained_type, STATE 9093), (sym_member_type, STATE 8165),
    (sym_mlir_type, STATE 7017), (sym_list, STATE 7017), (sym_set, STATE 7017),
    (sym_tuple, STATE 7017), (sym_dictionary, STATE 7017), (sym_struct_literal, STATE 7017),
    (sym_list_comprehension, STATE 7017), (sym_dictionary_comprehension, STATE 7017),
    (sym_set_comprehension, STATE 7017), (sym_generator_expression, STATE 7017),
    (sym_parenthesized_expression, STATE 7017), (sym_conditional_expression, STATE 7969),
    (sym_concatenated_string, STATE 7017), (sym_string, STATE 6729), (sym_await, STATE 7017),
    (sym_identifier, ACTIONS 327), (anon_sym_import, ACTIONS 11), (anon_sym_from, ACTIONS 13),
    (anon_sym_LPAREN, ACTIONS 329), (anon_sym_STAR, ACTIONS 331), (anon_sym_print, ACTIONS 333),
    (anon_sym_comptime, ACTIONS 335), (anon_sym_assert, ACTIONS 23),
    (anon_sym___comptime_assert, ACTIONS 25), (anon_sym_return, ACTIONS 27),
    (anon_sym_del, ACTIONS 29), (anon_sym_raise, ACTIONS 31), (anon_sym_pass, ACTIONS 33),
    (anon_sym_break, ACTIONS 35), (anon_sym_continue, ACTIONS 37), (anon_sym_match, ACTIONS 337),
    (anon_sym_async, ACTIONS 339), (anon_sym_def, ACTIONS 341), (anon_sym_LBRACK, ACTIONS 343),
    (anon_sym_LBRACE, ACTIONS 61), (anon_sym_STAR_STAR, ACTIONS 345),
    (anon_sym_global, ACTIONS 63), (anon_sym_nonlocal, ACTIONS 65), (anon_sym_exec, ACTIONS 347),
    (anon_sym_type, ACTIONS 349), (anon_sym_mut, ACTIONS 339), (anon_sym_out, ACTIONS 339),
    (anon_sym_DASH, ACTIONS 79), (anon_sym_PLUS, ACTIONS 79), (anon_sym_ref, ACTIONS 81),
    (anon_sym_var, ACTIONS 81), (anon_sym_not, ACTIONS 83), (anon_sym_TILDE, ACTIONS 79),
    (anon_sym_lambda, ACTIONS 85), (anon_sym_yield, ACTIONS 87), (sym_ellipsis, ACTIONS 89),
    (anon_sym___mlir_type, ACTIONS 91), (sym_integer, ACTIONS 93), (sym_float, ACTIONS 89),
    (anon_sym_await, ACTIONS 351), (sym_true, ACTIONS 93), (sym_false, ACTIONS 93),
    (sym_none, ACTIONS 93), (sym_comment, ACTIONS 3), (sym_line_continuation, ACTIONS 3),
    (sym__newline, ACTIONS 729), (sym__indent, ACTIONS 731), (sym_string_start, ACTIONS 97)]"

definition parse_table_1024 :: "(nat \<times> nat) list" where "parse_table_1024 = [
    (sym__simple_statements, STATE 4500), (sym_import_statement, STATE 12239),
    (sym_future_import_statement, STATE 12239), (sym_import_from_statement, STATE 12239),
    (sym_print_statement, STATE 12239), (sym_assert_statement, STATE 12239),
    (sym_comptime_assert_statement, STATE 12239), (sym_expression_statement, STATE 12239),
    (sym_tuple_expression, STATE 12425), (sym_named_expression, STATE 7969),
    (sym__named_expression_lhs, STATE 12752), (sym_return_statement, STATE 12239),
    (sym_delete_statement, STATE 12239), (sym_raise_statement, STATE 12239),
    (sym_pass_statement, STATE 12239), (sym_break_statement, STATE 12239),
    (sym_continue_statement, STATE 12239), (sym_global_statement, STATE 12239),
    (sym_nonlocal_statement, STATE 12239), (sym_exec_statement, STATE 12239),
    (sym_type_alias_statement, STATE 12239), (sym_parameterized_alias_statement, STATE 12239),
    (sym_pattern, STATE 8086), (sym_tuple_pattern, STATE 8101), (sym_list_pattern, STATE 8101),
    (sym_list_splat_pattern, STATE 6795), (sym_as_pattern, STATE 7969),
    (sym_expression, STATE 9623), (sym_primary_expression, STATE 7326),
    (sym_comptime_expression, STATE 7017), (sym_transfer_expression, STATE 7017),
    (sym_not_operator, STATE 7969), (sym_boolean_operator, STATE 7969),
    (sym_binary_operator, STATE 7017), (sym_unary_operator, STATE 7017),
    (sym_comparison_operator, STATE 7969), (sym_lambda, STATE 7969),
    (sym_assignment, STATE 12425), (sym_augmented_assignment, STATE 12425),
    (sym_pattern_list, STATE 8578), (sym_yield, STATE 12425), (sym_attribute, STATE 6796),
    (sym_subscript, STATE 6797), (sym_call, STATE 6768), (sym_type, STATE 10130),
    (sym_called_type, STATE 9093), (sym_function_type, STATE 9093), (sym_splat_type, STATE 9093),
    (sym_generic_type, STATE 8287), (sym_union_type, STATE 9093),
    (sym_intersection_type, STATE 9093), (sym__intersection_operand, STATE 12294),
    (sym_constrained_type, STATE 9093), (sym_member_type, STATE 8165),
    (sym_mlir_type, STATE 7017), (sym_list, STATE 7017), (sym_set, STATE 7017),
    (sym_tuple, STATE 7017), (sym_dictionary, STATE 7017), (sym_struct_literal, STATE 7017),
    (sym_list_comprehension, STATE 7017), (sym_dictionary_comprehension, STATE 7017),
    (sym_set_comprehension, STATE 7017), (sym_generator_expression, STATE 7017),
    (sym_parenthesized_expression, STATE 7017), (sym_conditional_expression, STATE 7969),
    (sym_concatenated_string, STATE 7017), (sym_string, STATE 6729), (sym_await, STATE 7017),
    (sym_identifier, ACTIONS 327), (anon_sym_import, ACTIONS 11), (anon_sym_from, ACTIONS 13),
    (anon_sym_LPAREN, ACTIONS 329), (anon_sym_STAR, ACTIONS 331), (anon_sym_print, ACTIONS 333),
    (anon_sym_comptime, ACTIONS 335), (anon_sym_assert, ACTIONS 23),
    (anon_sym___comptime_assert, ACTIONS 25), (anon_sym_return, ACTIONS 27),
    (anon_sym_del, ACTIONS 29), (anon_sym_raise, ACTIONS 31), (anon_sym_pass, ACTIONS 33),
    (anon_sym_break, ACTIONS 35), (anon_sym_continue, ACTIONS 37), (anon_sym_match, ACTIONS 337),
    (anon_sym_async, ACTIONS 339), (anon_sym_def, ACTIONS 341), (anon_sym_LBRACK, ACTIONS 343),
    (anon_sym_LBRACE, ACTIONS 61), (anon_sym_STAR_STAR, ACTIONS 345),
    (anon_sym_global, ACTIONS 63), (anon_sym_nonlocal, ACTIONS 65), (anon_sym_exec, ACTIONS 347),
    (anon_sym_type, ACTIONS 349), (anon_sym_mut, ACTIONS 339), (anon_sym_out, ACTIONS 339),
    (anon_sym_DASH, ACTIONS 79), (anon_sym_PLUS, ACTIONS 79), (anon_sym_ref, ACTIONS 81),
    (anon_sym_var, ACTIONS 81), (anon_sym_not, ACTIONS 83), (anon_sym_TILDE, ACTIONS 79),
    (anon_sym_lambda, ACTIONS 85), (anon_sym_yield, ACTIONS 87), (sym_ellipsis, ACTIONS 89),
    (anon_sym___mlir_type, ACTIONS 91), (sym_integer, ACTIONS 93), (sym_float, ACTIONS 89),
    (anon_sym_await, ACTIONS 351), (sym_true, ACTIONS 93), (sym_false, ACTIONS 93),
    (sym_none, ACTIONS 93), (sym_comment, ACTIONS 3), (sym_line_continuation, ACTIONS 3),
    (sym__newline, ACTIONS 733), (sym__indent, ACTIONS 735), (sym_string_start, ACTIONS 97)]"

definition parse_table_1025 :: "(nat \<times> nat) list" where "parse_table_1025 = [
    (sym__simple_statements, STATE 6396), (sym_import_statement, STATE 11814),
    (sym_future_import_statement, STATE 11814), (sym_import_from_statement, STATE 11814),
    (sym_print_statement, STATE 11814), (sym_assert_statement, STATE 11814),
    (sym_comptime_assert_statement, STATE 11814), (sym_expression_statement, STATE 11814),
    (sym_tuple_expression, STATE 12425), (sym_named_expression, STATE 7969),
    (sym__named_expression_lhs, STATE 12752), (sym_return_statement, STATE 11814),
    (sym_delete_statement, STATE 11814), (sym_raise_statement, STATE 11814),
    (sym_pass_statement, STATE 11814), (sym_break_statement, STATE 11814),
    (sym_continue_statement, STATE 11814), (sym_global_statement, STATE 11814),
    (sym_nonlocal_statement, STATE 11814), (sym_exec_statement, STATE 11814),
    (sym_type_alias_statement, STATE 11814), (sym_parameterized_alias_statement, STATE 11814),
    (sym_pattern, STATE 8086), (sym_tuple_pattern, STATE 8101), (sym_list_pattern, STATE 8101),
    (sym_list_splat_pattern, STATE 6795), (sym_as_pattern, STATE 7969),
    (sym_expression, STATE 9623), (sym_primary_expression, STATE 7326),
    (sym_comptime_expression, STATE 7017), (sym_transfer_expression, STATE 7017),
    (sym_not_operator, STATE 7969), (sym_boolean_operator, STATE 7969),
    (sym_binary_operator, STATE 7017), (sym_unary_operator, STATE 7017),
    (sym_comparison_operator, STATE 7969), (sym_lambda, STATE 7969),
    (sym_assignment, STATE 12425), (sym_augmented_assignment, STATE 12425),
    (sym_pattern_list, STATE 8578), (sym_yield, STATE 12425), (sym_attribute, STATE 6796),
    (sym_subscript, STATE 6797), (sym_call, STATE 6768), (sym_type, STATE 10130),
    (sym_called_type, STATE 9093), (sym_function_type, STATE 9093), (sym_splat_type, STATE 9093),
    (sym_generic_type, STATE 8287), (sym_union_type, STATE 9093),
    (sym_intersection_type, STATE 9093), (sym__intersection_operand, STATE 12294),
    (sym_constrained_type, STATE 9093), (sym_member_type, STATE 8165),
    (sym_mlir_type, STATE 7017), (sym_list, STATE 7017), (sym_set, STATE 7017),
    (sym_tuple, STATE 7017), (sym_dictionary, STATE 7017), (sym_struct_literal, STATE 7017),
    (sym_list_comprehension, STATE 7017), (sym_dictionary_comprehension, STATE 7017),
    (sym_set_comprehension, STATE 7017), (sym_generator_expression, STATE 7017),
    (sym_parenthesized_expression, STATE 7017), (sym_conditional_expression, STATE 7969),
    (sym_concatenated_string, STATE 7017), (sym_string, STATE 6729), (sym_await, STATE 7017),
    (sym_identifier, ACTIONS 327), (anon_sym_import, ACTIONS 11), (anon_sym_from, ACTIONS 13),
    (anon_sym_LPAREN, ACTIONS 329), (anon_sym_STAR, ACTIONS 331), (anon_sym_print, ACTIONS 333),
    (anon_sym_comptime, ACTIONS 335), (anon_sym_assert, ACTIONS 23),
    (anon_sym___comptime_assert, ACTIONS 25), (anon_sym_return, ACTIONS 27),
    (anon_sym_del, ACTIONS 29), (anon_sym_raise, ACTIONS 31), (anon_sym_pass, ACTIONS 33),
    (anon_sym_break, ACTIONS 35), (anon_sym_continue, ACTIONS 37), (anon_sym_match, ACTIONS 337),
    (anon_sym_async, ACTIONS 339), (anon_sym_def, ACTIONS 341), (anon_sym_LBRACK, ACTIONS 343),
    (anon_sym_LBRACE, ACTIONS 61), (anon_sym_STAR_STAR, ACTIONS 345),
    (anon_sym_global, ACTIONS 63), (anon_sym_nonlocal, ACTIONS 65), (anon_sym_exec, ACTIONS 347),
    (anon_sym_type, ACTIONS 349), (anon_sym_mut, ACTIONS 339), (anon_sym_out, ACTIONS 339),
    (anon_sym_DASH, ACTIONS 79), (anon_sym_PLUS, ACTIONS 79), (anon_sym_ref, ACTIONS 81),
    (anon_sym_var, ACTIONS 81), (anon_sym_not, ACTIONS 83), (anon_sym_TILDE, ACTIONS 79),
    (anon_sym_lambda, ACTIONS 85), (anon_sym_yield, ACTIONS 87), (sym_ellipsis, ACTIONS 89),
    (anon_sym___mlir_type, ACTIONS 91), (sym_integer, ACTIONS 93), (sym_float, ACTIONS 89),
    (anon_sym_await, ACTIONS 351), (sym_true, ACTIONS 93), (sym_false, ACTIONS 93),
    (sym_none, ACTIONS 93), (sym_comment, ACTIONS 3), (sym_line_continuation, ACTIONS 3),
    (sym__newline, ACTIONS 737), (sym__indent, ACTIONS 739), (sym_string_start, ACTIONS 97)]"

definition parse_table_1026 :: "(nat \<times> nat) list" where "parse_table_1026 = [
    (sym__simple_statements, STATE 5926), (sym_import_statement, STATE 12239),
    (sym_future_import_statement, STATE 12239), (sym_import_from_statement, STATE 12239),
    (sym_print_statement, STATE 12239), (sym_assert_statement, STATE 12239),
    (sym_comptime_assert_statement, STATE 12239), (sym_expression_statement, STATE 12239),
    (sym_tuple_expression, STATE 12425), (sym_named_expression, STATE 7969),
    (sym__named_expression_lhs, STATE 12752), (sym_return_statement, STATE 12239),
    (sym_delete_statement, STATE 12239), (sym_raise_statement, STATE 12239),
    (sym_pass_statement, STATE 12239), (sym_break_statement, STATE 12239),
    (sym_continue_statement, STATE 12239), (sym_global_statement, STATE 12239),
    (sym_nonlocal_statement, STATE 12239), (sym_exec_statement, STATE 12239),
    (sym_type_alias_statement, STATE 12239), (sym_parameterized_alias_statement, STATE 12239),
    (sym_pattern, STATE 8086), (sym_tuple_pattern, STATE 8101), (sym_list_pattern, STATE 8101),
    (sym_list_splat_pattern, STATE 6795), (sym_as_pattern, STATE 7969),
    (sym_expression, STATE 9623), (sym_primary_expression, STATE 7326),
    (sym_comptime_expression, STATE 7017), (sym_transfer_expression, STATE 7017),
    (sym_not_operator, STATE 7969), (sym_boolean_operator, STATE 7969),
    (sym_binary_operator, STATE 7017), (sym_unary_operator, STATE 7017),
    (sym_comparison_operator, STATE 7969), (sym_lambda, STATE 7969),
    (sym_assignment, STATE 12425), (sym_augmented_assignment, STATE 12425),
    (sym_pattern_list, STATE 8578), (sym_yield, STATE 12425), (sym_attribute, STATE 6796),
    (sym_subscript, STATE 6797), (sym_call, STATE 6768), (sym_type, STATE 10130),
    (sym_called_type, STATE 9093), (sym_function_type, STATE 9093), (sym_splat_type, STATE 9093),
    (sym_generic_type, STATE 8287), (sym_union_type, STATE 9093),
    (sym_intersection_type, STATE 9093), (sym__intersection_operand, STATE 12294),
    (sym_constrained_type, STATE 9093), (sym_member_type, STATE 8165),
    (sym_mlir_type, STATE 7017), (sym_list, STATE 7017), (sym_set, STATE 7017),
    (sym_tuple, STATE 7017), (sym_dictionary, STATE 7017), (sym_struct_literal, STATE 7017),
    (sym_list_comprehension, STATE 7017), (sym_dictionary_comprehension, STATE 7017),
    (sym_set_comprehension, STATE 7017), (sym_generator_expression, STATE 7017),
    (sym_parenthesized_expression, STATE 7017), (sym_conditional_expression, STATE 7969),
    (sym_concatenated_string, STATE 7017), (sym_string, STATE 6729), (sym_await, STATE 7017),
    (sym_identifier, ACTIONS 327), (anon_sym_import, ACTIONS 11), (anon_sym_from, ACTIONS 13),
    (anon_sym_LPAREN, ACTIONS 329), (anon_sym_STAR, ACTIONS 331), (anon_sym_print, ACTIONS 333),
    (anon_sym_comptime, ACTIONS 335), (anon_sym_assert, ACTIONS 23),
    (anon_sym___comptime_assert, ACTIONS 25), (anon_sym_return, ACTIONS 27),
    (anon_sym_del, ACTIONS 29), (anon_sym_raise, ACTIONS 31), (anon_sym_pass, ACTIONS 33),
    (anon_sym_break, ACTIONS 35), (anon_sym_continue, ACTIONS 37), (anon_sym_match, ACTIONS 337),
    (anon_sym_async, ACTIONS 339), (anon_sym_def, ACTIONS 341), (anon_sym_LBRACK, ACTIONS 343),
    (anon_sym_LBRACE, ACTIONS 61), (anon_sym_STAR_STAR, ACTIONS 345),
    (anon_sym_global, ACTIONS 63), (anon_sym_nonlocal, ACTIONS 65), (anon_sym_exec, ACTIONS 347),
    (anon_sym_type, ACTIONS 349), (anon_sym_mut, ACTIONS 339), (anon_sym_out, ACTIONS 339),
    (anon_sym_DASH, ACTIONS 79), (anon_sym_PLUS, ACTIONS 79), (anon_sym_ref, ACTIONS 81),
    (anon_sym_var, ACTIONS 81), (anon_sym_not, ACTIONS 83), (anon_sym_TILDE, ACTIONS 79),
    (anon_sym_lambda, ACTIONS 85), (anon_sym_yield, ACTIONS 87), (sym_ellipsis, ACTIONS 89),
    (anon_sym___mlir_type, ACTIONS 91), (sym_integer, ACTIONS 93), (sym_float, ACTIONS 89),
    (anon_sym_await, ACTIONS 351), (sym_true, ACTIONS 93), (sym_false, ACTIONS 93),
    (sym_none, ACTIONS 93), (sym_comment, ACTIONS 3), (sym_line_continuation, ACTIONS 3),
    (sym__newline, ACTIONS 741), (sym__indent, ACTIONS 743), (sym_string_start, ACTIONS 97)]"

definition parse_table_1027 :: "(nat \<times> nat) list" where "parse_table_1027 = [
    (sym__simple_statements, STATE 5933), (sym_import_statement, STATE 12239),
    (sym_future_import_statement, STATE 12239), (sym_import_from_statement, STATE 12239),
    (sym_print_statement, STATE 12239), (sym_assert_statement, STATE 12239),
    (sym_comptime_assert_statement, STATE 12239), (sym_expression_statement, STATE 12239),
    (sym_tuple_expression, STATE 12425), (sym_named_expression, STATE 7969),
    (sym__named_expression_lhs, STATE 12752), (sym_return_statement, STATE 12239),
    (sym_delete_statement, STATE 12239), (sym_raise_statement, STATE 12239),
    (sym_pass_statement, STATE 12239), (sym_break_statement, STATE 12239),
    (sym_continue_statement, STATE 12239), (sym_global_statement, STATE 12239),
    (sym_nonlocal_statement, STATE 12239), (sym_exec_statement, STATE 12239),
    (sym_type_alias_statement, STATE 12239), (sym_parameterized_alias_statement, STATE 12239),
    (sym_pattern, STATE 8086), (sym_tuple_pattern, STATE 8101), (sym_list_pattern, STATE 8101),
    (sym_list_splat_pattern, STATE 6795), (sym_as_pattern, STATE 7969),
    (sym_expression, STATE 9623), (sym_primary_expression, STATE 7326),
    (sym_comptime_expression, STATE 7017), (sym_transfer_expression, STATE 7017),
    (sym_not_operator, STATE 7969), (sym_boolean_operator, STATE 7969),
    (sym_binary_operator, STATE 7017), (sym_unary_operator, STATE 7017),
    (sym_comparison_operator, STATE 7969), (sym_lambda, STATE 7969),
    (sym_assignment, STATE 12425), (sym_augmented_assignment, STATE 12425),
    (sym_pattern_list, STATE 8578), (sym_yield, STATE 12425), (sym_attribute, STATE 6796),
    (sym_subscript, STATE 6797), (sym_call, STATE 6768), (sym_type, STATE 10130),
    (sym_called_type, STATE 9093), (sym_function_type, STATE 9093), (sym_splat_type, STATE 9093),
    (sym_generic_type, STATE 8287), (sym_union_type, STATE 9093),
    (sym_intersection_type, STATE 9093), (sym__intersection_operand, STATE 12294),
    (sym_constrained_type, STATE 9093), (sym_member_type, STATE 8165),
    (sym_mlir_type, STATE 7017), (sym_list, STATE 7017), (sym_set, STATE 7017),
    (sym_tuple, STATE 7017), (sym_dictionary, STATE 7017), (sym_struct_literal, STATE 7017),
    (sym_list_comprehension, STATE 7017), (sym_dictionary_comprehension, STATE 7017),
    (sym_set_comprehension, STATE 7017), (sym_generator_expression, STATE 7017),
    (sym_parenthesized_expression, STATE 7017), (sym_conditional_expression, STATE 7969),
    (sym_concatenated_string, STATE 7017), (sym_string, STATE 6729), (sym_await, STATE 7017),
    (sym_identifier, ACTIONS 327), (anon_sym_import, ACTIONS 11), (anon_sym_from, ACTIONS 13),
    (anon_sym_LPAREN, ACTIONS 329), (anon_sym_STAR, ACTIONS 331), (anon_sym_print, ACTIONS 333),
    (anon_sym_comptime, ACTIONS 335), (anon_sym_assert, ACTIONS 23),
    (anon_sym___comptime_assert, ACTIONS 25), (anon_sym_return, ACTIONS 27),
    (anon_sym_del, ACTIONS 29), (anon_sym_raise, ACTIONS 31), (anon_sym_pass, ACTIONS 33),
    (anon_sym_break, ACTIONS 35), (anon_sym_continue, ACTIONS 37), (anon_sym_match, ACTIONS 337),
    (anon_sym_async, ACTIONS 339), (anon_sym_def, ACTIONS 341), (anon_sym_LBRACK, ACTIONS 343),
    (anon_sym_LBRACE, ACTIONS 61), (anon_sym_STAR_STAR, ACTIONS 345),
    (anon_sym_global, ACTIONS 63), (anon_sym_nonlocal, ACTIONS 65), (anon_sym_exec, ACTIONS 347),
    (anon_sym_type, ACTIONS 349), (anon_sym_mut, ACTIONS 339), (anon_sym_out, ACTIONS 339),
    (anon_sym_DASH, ACTIONS 79), (anon_sym_PLUS, ACTIONS 79), (anon_sym_ref, ACTIONS 81),
    (anon_sym_var, ACTIONS 81), (anon_sym_not, ACTIONS 83), (anon_sym_TILDE, ACTIONS 79),
    (anon_sym_lambda, ACTIONS 85), (anon_sym_yield, ACTIONS 87), (sym_ellipsis, ACTIONS 89),
    (anon_sym___mlir_type, ACTIONS 91), (sym_integer, ACTIONS 93), (sym_float, ACTIONS 89),
    (anon_sym_await, ACTIONS 351), (sym_true, ACTIONS 93), (sym_false, ACTIONS 93),
    (sym_none, ACTIONS 93), (sym_comment, ACTIONS 3), (sym_line_continuation, ACTIONS 3),
    (sym__newline, ACTIONS 745), (sym__indent, ACTIONS 747), (sym_string_start, ACTIONS 97)]"

definition parse_table_1028 :: "(nat \<times> nat) list" where "parse_table_1028 = [
    (sym__simple_statements, STATE 4508), (sym_import_statement, STATE 12239),
    (sym_future_import_statement, STATE 12239), (sym_import_from_statement, STATE 12239),
    (sym_print_statement, STATE 12239), (sym_assert_statement, STATE 12239),
    (sym_comptime_assert_statement, STATE 12239), (sym_expression_statement, STATE 12239),
    (sym_tuple_expression, STATE 12425), (sym_named_expression, STATE 7969),
    (sym__named_expression_lhs, STATE 12752), (sym_return_statement, STATE 12239),
    (sym_delete_statement, STATE 12239), (sym_raise_statement, STATE 12239),
    (sym_pass_statement, STATE 12239), (sym_break_statement, STATE 12239),
    (sym_continue_statement, STATE 12239), (sym_global_statement, STATE 12239),
    (sym_nonlocal_statement, STATE 12239), (sym_exec_statement, STATE 12239),
    (sym_type_alias_statement, STATE 12239), (sym_parameterized_alias_statement, STATE 12239),
    (sym_pattern, STATE 8086), (sym_tuple_pattern, STATE 8101), (sym_list_pattern, STATE 8101),
    (sym_list_splat_pattern, STATE 6795), (sym_as_pattern, STATE 7969),
    (sym_expression, STATE 9623), (sym_primary_expression, STATE 7326),
    (sym_comptime_expression, STATE 7017), (sym_transfer_expression, STATE 7017),
    (sym_not_operator, STATE 7969), (sym_boolean_operator, STATE 7969),
    (sym_binary_operator, STATE 7017), (sym_unary_operator, STATE 7017),
    (sym_comparison_operator, STATE 7969), (sym_lambda, STATE 7969),
    (sym_assignment, STATE 12425), (sym_augmented_assignment, STATE 12425),
    (sym_pattern_list, STATE 8578), (sym_yield, STATE 12425), (sym_attribute, STATE 6796),
    (sym_subscript, STATE 6797), (sym_call, STATE 6768), (sym_type, STATE 10130),
    (sym_called_type, STATE 9093), (sym_function_type, STATE 9093), (sym_splat_type, STATE 9093),
    (sym_generic_type, STATE 8287), (sym_union_type, STATE 9093),
    (sym_intersection_type, STATE 9093), (sym__intersection_operand, STATE 12294),
    (sym_constrained_type, STATE 9093), (sym_member_type, STATE 8165),
    (sym_mlir_type, STATE 7017), (sym_list, STATE 7017), (sym_set, STATE 7017),
    (sym_tuple, STATE 7017), (sym_dictionary, STATE 7017), (sym_struct_literal, STATE 7017),
    (sym_list_comprehension, STATE 7017), (sym_dictionary_comprehension, STATE 7017),
    (sym_set_comprehension, STATE 7017), (sym_generator_expression, STATE 7017),
    (sym_parenthesized_expression, STATE 7017), (sym_conditional_expression, STATE 7969),
    (sym_concatenated_string, STATE 7017), (sym_string, STATE 6729), (sym_await, STATE 7017),
    (sym_identifier, ACTIONS 327), (anon_sym_import, ACTIONS 11), (anon_sym_from, ACTIONS 13),
    (anon_sym_LPAREN, ACTIONS 329), (anon_sym_STAR, ACTIONS 331), (anon_sym_print, ACTIONS 333),
    (anon_sym_comptime, ACTIONS 335), (anon_sym_assert, ACTIONS 23),
    (anon_sym___comptime_assert, ACTIONS 25), (anon_sym_return, ACTIONS 27),
    (anon_sym_del, ACTIONS 29), (anon_sym_raise, ACTIONS 31), (anon_sym_pass, ACTIONS 33),
    (anon_sym_break, ACTIONS 35), (anon_sym_continue, ACTIONS 37), (anon_sym_match, ACTIONS 337),
    (anon_sym_async, ACTIONS 339), (anon_sym_def, ACTIONS 341), (anon_sym_LBRACK, ACTIONS 343),
    (anon_sym_LBRACE, ACTIONS 61), (anon_sym_STAR_STAR, ACTIONS 345),
    (anon_sym_global, ACTIONS 63), (anon_sym_nonlocal, ACTIONS 65), (anon_sym_exec, ACTIONS 347),
    (anon_sym_type, ACTIONS 349), (anon_sym_mut, ACTIONS 339), (anon_sym_out, ACTIONS 339),
    (anon_sym_DASH, ACTIONS 79), (anon_sym_PLUS, ACTIONS 79), (anon_sym_ref, ACTIONS 81),
    (anon_sym_var, ACTIONS 81), (anon_sym_not, ACTIONS 83), (anon_sym_TILDE, ACTIONS 79),
    (anon_sym_lambda, ACTIONS 85), (anon_sym_yield, ACTIONS 87), (sym_ellipsis, ACTIONS 89),
    (anon_sym___mlir_type, ACTIONS 91), (sym_integer, ACTIONS 93), (sym_float, ACTIONS 89),
    (anon_sym_await, ACTIONS 351), (sym_true, ACTIONS 93), (sym_false, ACTIONS 93),
    (sym_none, ACTIONS 93), (sym_comment, ACTIONS 3), (sym_line_continuation, ACTIONS 3),
    (sym__newline, ACTIONS 749), (sym__indent, ACTIONS 751), (sym_string_start, ACTIONS 97)]"

definition parse_table_1029 :: "(nat \<times> nat) list" where "parse_table_1029 = [
    (sym__simple_statements, STATE 5578), (sym_import_statement, STATE 11814),
    (sym_future_import_statement, STATE 11814), (sym_import_from_statement, STATE 11814),
    (sym_print_statement, STATE 11814), (sym_assert_statement, STATE 11814),
    (sym_comptime_assert_statement, STATE 11814), (sym_expression_statement, STATE 11814),
    (sym_tuple_expression, STATE 12425), (sym_named_expression, STATE 7969),
    (sym__named_expression_lhs, STATE 12752), (sym_return_statement, STATE 11814),
    (sym_delete_statement, STATE 11814), (sym_raise_statement, STATE 11814),
    (sym_pass_statement, STATE 11814), (sym_break_statement, STATE 11814),
    (sym_continue_statement, STATE 11814), (sym_global_statement, STATE 11814),
    (sym_nonlocal_statement, STATE 11814), (sym_exec_statement, STATE 11814),
    (sym_type_alias_statement, STATE 11814), (sym_parameterized_alias_statement, STATE 11814),
    (sym_pattern, STATE 8086), (sym_tuple_pattern, STATE 8101), (sym_list_pattern, STATE 8101),
    (sym_list_splat_pattern, STATE 6795), (sym_as_pattern, STATE 7969),
    (sym_expression, STATE 9623), (sym_primary_expression, STATE 7326),
    (sym_comptime_expression, STATE 7017), (sym_transfer_expression, STATE 7017),
    (sym_not_operator, STATE 7969), (sym_boolean_operator, STATE 7969),
    (sym_binary_operator, STATE 7017), (sym_unary_operator, STATE 7017),
    (sym_comparison_operator, STATE 7969), (sym_lambda, STATE 7969),
    (sym_assignment, STATE 12425), (sym_augmented_assignment, STATE 12425),
    (sym_pattern_list, STATE 8578), (sym_yield, STATE 12425), (sym_attribute, STATE 6796),
    (sym_subscript, STATE 6797), (sym_call, STATE 6768), (sym_type, STATE 10130),
    (sym_called_type, STATE 9093), (sym_function_type, STATE 9093), (sym_splat_type, STATE 9093),
    (sym_generic_type, STATE 8287), (sym_union_type, STATE 9093),
    (sym_intersection_type, STATE 9093), (sym__intersection_operand, STATE 12294),
    (sym_constrained_type, STATE 9093), (sym_member_type, STATE 8165),
    (sym_mlir_type, STATE 7017), (sym_list, STATE 7017), (sym_set, STATE 7017),
    (sym_tuple, STATE 7017), (sym_dictionary, STATE 7017), (sym_struct_literal, STATE 7017),
    (sym_list_comprehension, STATE 7017), (sym_dictionary_comprehension, STATE 7017),
    (sym_set_comprehension, STATE 7017), (sym_generator_expression, STATE 7017),
    (sym_parenthesized_expression, STATE 7017), (sym_conditional_expression, STATE 7969),
    (sym_concatenated_string, STATE 7017), (sym_string, STATE 6729), (sym_await, STATE 7017),
    (sym_identifier, ACTIONS 327), (anon_sym_import, ACTIONS 11), (anon_sym_from, ACTIONS 13),
    (anon_sym_LPAREN, ACTIONS 329), (anon_sym_STAR, ACTIONS 331), (anon_sym_print, ACTIONS 333),
    (anon_sym_comptime, ACTIONS 335), (anon_sym_assert, ACTIONS 23),
    (anon_sym___comptime_assert, ACTIONS 25), (anon_sym_return, ACTIONS 27),
    (anon_sym_del, ACTIONS 29), (anon_sym_raise, ACTIONS 31), (anon_sym_pass, ACTIONS 33),
    (anon_sym_break, ACTIONS 35), (anon_sym_continue, ACTIONS 37), (anon_sym_match, ACTIONS 337),
    (anon_sym_async, ACTIONS 339), (anon_sym_def, ACTIONS 341), (anon_sym_LBRACK, ACTIONS 343),
    (anon_sym_LBRACE, ACTIONS 61), (anon_sym_STAR_STAR, ACTIONS 345),
    (anon_sym_global, ACTIONS 63), (anon_sym_nonlocal, ACTIONS 65), (anon_sym_exec, ACTIONS 347),
    (anon_sym_type, ACTIONS 349), (anon_sym_mut, ACTIONS 339), (anon_sym_out, ACTIONS 339),
    (anon_sym_DASH, ACTIONS 79), (anon_sym_PLUS, ACTIONS 79), (anon_sym_ref, ACTIONS 81),
    (anon_sym_var, ACTIONS 81), (anon_sym_not, ACTIONS 83), (anon_sym_TILDE, ACTIONS 79),
    (anon_sym_lambda, ACTIONS 85), (anon_sym_yield, ACTIONS 87), (sym_ellipsis, ACTIONS 89),
    (anon_sym___mlir_type, ACTIONS 91), (sym_integer, ACTIONS 93), (sym_float, ACTIONS 89),
    (anon_sym_await, ACTIONS 351), (sym_true, ACTIONS 93), (sym_false, ACTIONS 93),
    (sym_none, ACTIONS 93), (sym_comment, ACTIONS 3), (sym_line_continuation, ACTIONS 3),
    (sym__newline, ACTIONS 753), (sym__indent, ACTIONS 755), (sym_string_start, ACTIONS 97)]"

definition parse_table_1030 :: "(nat \<times> nat) list" where "parse_table_1030 = [
    (sym__simple_statements, STATE 5946), (sym_import_statement, STATE 12239),
    (sym_future_import_statement, STATE 12239), (sym_import_from_statement, STATE 12239),
    (sym_print_statement, STATE 12239), (sym_assert_statement, STATE 12239),
    (sym_comptime_assert_statement, STATE 12239), (sym_expression_statement, STATE 12239),
    (sym_tuple_expression, STATE 12425), (sym_named_expression, STATE 7969),
    (sym__named_expression_lhs, STATE 12752), (sym_return_statement, STATE 12239),
    (sym_delete_statement, STATE 12239), (sym_raise_statement, STATE 12239),
    (sym_pass_statement, STATE 12239), (sym_break_statement, STATE 12239),
    (sym_continue_statement, STATE 12239), (sym_global_statement, STATE 12239),
    (sym_nonlocal_statement, STATE 12239), (sym_exec_statement, STATE 12239),
    (sym_type_alias_statement, STATE 12239), (sym_parameterized_alias_statement, STATE 12239),
    (sym_pattern, STATE 8086), (sym_tuple_pattern, STATE 8101), (sym_list_pattern, STATE 8101),
    (sym_list_splat_pattern, STATE 6795), (sym_as_pattern, STATE 7969),
    (sym_expression, STATE 9623), (sym_primary_expression, STATE 7326),
    (sym_comptime_expression, STATE 7017), (sym_transfer_expression, STATE 7017),
    (sym_not_operator, STATE 7969), (sym_boolean_operator, STATE 7969),
    (sym_binary_operator, STATE 7017), (sym_unary_operator, STATE 7017),
    (sym_comparison_operator, STATE 7969), (sym_lambda, STATE 7969),
    (sym_assignment, STATE 12425), (sym_augmented_assignment, STATE 12425),
    (sym_pattern_list, STATE 8578), (sym_yield, STATE 12425), (sym_attribute, STATE 6796),
    (sym_subscript, STATE 6797), (sym_call, STATE 6768), (sym_type, STATE 10130),
    (sym_called_type, STATE 9093), (sym_function_type, STATE 9093), (sym_splat_type, STATE 9093),
    (sym_generic_type, STATE 8287), (sym_union_type, STATE 9093),
    (sym_intersection_type, STATE 9093), (sym__intersection_operand, STATE 12294),
    (sym_constrained_type, STATE 9093), (sym_member_type, STATE 8165),
    (sym_mlir_type, STATE 7017), (sym_list, STATE 7017), (sym_set, STATE 7017),
    (sym_tuple, STATE 7017), (sym_dictionary, STATE 7017), (sym_struct_literal, STATE 7017),
    (sym_list_comprehension, STATE 7017), (sym_dictionary_comprehension, STATE 7017),
    (sym_set_comprehension, STATE 7017), (sym_generator_expression, STATE 7017),
    (sym_parenthesized_expression, STATE 7017), (sym_conditional_expression, STATE 7969),
    (sym_concatenated_string, STATE 7017), (sym_string, STATE 6729), (sym_await, STATE 7017),
    (sym_identifier, ACTIONS 327), (anon_sym_import, ACTIONS 11), (anon_sym_from, ACTIONS 13),
    (anon_sym_LPAREN, ACTIONS 329), (anon_sym_STAR, ACTIONS 331), (anon_sym_print, ACTIONS 333),
    (anon_sym_comptime, ACTIONS 335), (anon_sym_assert, ACTIONS 23),
    (anon_sym___comptime_assert, ACTIONS 25), (anon_sym_return, ACTIONS 27),
    (anon_sym_del, ACTIONS 29), (anon_sym_raise, ACTIONS 31), (anon_sym_pass, ACTIONS 33),
    (anon_sym_break, ACTIONS 35), (anon_sym_continue, ACTIONS 37), (anon_sym_match, ACTIONS 337),
    (anon_sym_async, ACTIONS 339), (anon_sym_def, ACTIONS 341), (anon_sym_LBRACK, ACTIONS 343),
    (anon_sym_LBRACE, ACTIONS 61), (anon_sym_STAR_STAR, ACTIONS 345),
    (anon_sym_global, ACTIONS 63), (anon_sym_nonlocal, ACTIONS 65), (anon_sym_exec, ACTIONS 347),
    (anon_sym_type, ACTIONS 349), (anon_sym_mut, ACTIONS 339), (anon_sym_out, ACTIONS 339),
    (anon_sym_DASH, ACTIONS 79), (anon_sym_PLUS, ACTIONS 79), (anon_sym_ref, ACTIONS 81),
    (anon_sym_var, ACTIONS 81), (anon_sym_not, ACTIONS 83), (anon_sym_TILDE, ACTIONS 79),
    (anon_sym_lambda, ACTIONS 85), (anon_sym_yield, ACTIONS 87), (sym_ellipsis, ACTIONS 89),
    (anon_sym___mlir_type, ACTIONS 91), (sym_integer, ACTIONS 93), (sym_float, ACTIONS 89),
    (anon_sym_await, ACTIONS 351), (sym_true, ACTIONS 93), (sym_false, ACTIONS 93),
    (sym_none, ACTIONS 93), (sym_comment, ACTIONS 3), (sym_line_continuation, ACTIONS 3),
    (sym__newline, ACTIONS 757), (sym__indent, ACTIONS 759), (sym_string_start, ACTIONS 97)]"

definition parse_table_1031 :: "(nat \<times> nat) list" where "parse_table_1031 = [
    (sym__simple_statements, STATE 6410), (sym_import_statement, STATE 11814),
    (sym_future_import_statement, STATE 11814), (sym_import_from_statement, STATE 11814),
    (sym_print_statement, STATE 11814), (sym_assert_statement, STATE 11814),
    (sym_comptime_assert_statement, STATE 11814), (sym_expression_statement, STATE 11814),
    (sym_tuple_expression, STATE 12425), (sym_named_expression, STATE 7969),
    (sym__named_expression_lhs, STATE 12752), (sym_return_statement, STATE 11814),
    (sym_delete_statement, STATE 11814), (sym_raise_statement, STATE 11814),
    (sym_pass_statement, STATE 11814), (sym_break_statement, STATE 11814),
    (sym_continue_statement, STATE 11814), (sym_global_statement, STATE 11814),
    (sym_nonlocal_statement, STATE 11814), (sym_exec_statement, STATE 11814),
    (sym_type_alias_statement, STATE 11814), (sym_parameterized_alias_statement, STATE 11814),
    (sym_pattern, STATE 8086), (sym_tuple_pattern, STATE 8101), (sym_list_pattern, STATE 8101),
    (sym_list_splat_pattern, STATE 6795), (sym_as_pattern, STATE 7969),
    (sym_expression, STATE 9623), (sym_primary_expression, STATE 7326),
    (sym_comptime_expression, STATE 7017), (sym_transfer_expression, STATE 7017),
    (sym_not_operator, STATE 7969), (sym_boolean_operator, STATE 7969),
    (sym_binary_operator, STATE 7017), (sym_unary_operator, STATE 7017),
    (sym_comparison_operator, STATE 7969), (sym_lambda, STATE 7969),
    (sym_assignment, STATE 12425), (sym_augmented_assignment, STATE 12425),
    (sym_pattern_list, STATE 8578), (sym_yield, STATE 12425), (sym_attribute, STATE 6796),
    (sym_subscript, STATE 6797), (sym_call, STATE 6768), (sym_type, STATE 10130),
    (sym_called_type, STATE 9093), (sym_function_type, STATE 9093), (sym_splat_type, STATE 9093),
    (sym_generic_type, STATE 8287), (sym_union_type, STATE 9093),
    (sym_intersection_type, STATE 9093), (sym__intersection_operand, STATE 12294),
    (sym_constrained_type, STATE 9093), (sym_member_type, STATE 8165),
    (sym_mlir_type, STATE 7017), (sym_list, STATE 7017), (sym_set, STATE 7017),
    (sym_tuple, STATE 7017), (sym_dictionary, STATE 7017), (sym_struct_literal, STATE 7017),
    (sym_list_comprehension, STATE 7017), (sym_dictionary_comprehension, STATE 7017),
    (sym_set_comprehension, STATE 7017), (sym_generator_expression, STATE 7017),
    (sym_parenthesized_expression, STATE 7017), (sym_conditional_expression, STATE 7969),
    (sym_concatenated_string, STATE 7017), (sym_string, STATE 6729), (sym_await, STATE 7017),
    (sym_identifier, ACTIONS 327), (anon_sym_import, ACTIONS 11), (anon_sym_from, ACTIONS 13),
    (anon_sym_LPAREN, ACTIONS 329), (anon_sym_STAR, ACTIONS 331), (anon_sym_print, ACTIONS 333),
    (anon_sym_comptime, ACTIONS 335), (anon_sym_assert, ACTIONS 23),
    (anon_sym___comptime_assert, ACTIONS 25), (anon_sym_return, ACTIONS 27),
    (anon_sym_del, ACTIONS 29), (anon_sym_raise, ACTIONS 31), (anon_sym_pass, ACTIONS 33),
    (anon_sym_break, ACTIONS 35), (anon_sym_continue, ACTIONS 37), (anon_sym_match, ACTIONS 337),
    (anon_sym_async, ACTIONS 339), (anon_sym_def, ACTIONS 341), (anon_sym_LBRACK, ACTIONS 343),
    (anon_sym_LBRACE, ACTIONS 61), (anon_sym_STAR_STAR, ACTIONS 345),
    (anon_sym_global, ACTIONS 63), (anon_sym_nonlocal, ACTIONS 65), (anon_sym_exec, ACTIONS 347),
    (anon_sym_type, ACTIONS 349), (anon_sym_mut, ACTIONS 339), (anon_sym_out, ACTIONS 339),
    (anon_sym_DASH, ACTIONS 79), (anon_sym_PLUS, ACTIONS 79), (anon_sym_ref, ACTIONS 81),
    (anon_sym_var, ACTIONS 81), (anon_sym_not, ACTIONS 83), (anon_sym_TILDE, ACTIONS 79),
    (anon_sym_lambda, ACTIONS 85), (anon_sym_yield, ACTIONS 87), (sym_ellipsis, ACTIONS 89),
    (anon_sym___mlir_type, ACTIONS 91), (sym_integer, ACTIONS 93), (sym_float, ACTIONS 89),
    (anon_sym_await, ACTIONS 351), (sym_true, ACTIONS 93), (sym_false, ACTIONS 93),
    (sym_none, ACTIONS 93), (sym_comment, ACTIONS 3), (sym_line_continuation, ACTIONS 3),
    (sym__newline, ACTIONS 761), (sym__indent, ACTIONS 763), (sym_string_start, ACTIONS 97)]"

definition parse_table_1032 :: "(nat \<times> nat) list" where "parse_table_1032 = [
    (sym__simple_statements, STATE 5583), (sym_import_statement, STATE 11814),
    (sym_future_import_statement, STATE 11814), (sym_import_from_statement, STATE 11814),
    (sym_print_statement, STATE 11814), (sym_assert_statement, STATE 11814),
    (sym_comptime_assert_statement, STATE 11814), (sym_expression_statement, STATE 11814),
    (sym_tuple_expression, STATE 12425), (sym_named_expression, STATE 7969),
    (sym__named_expression_lhs, STATE 12752), (sym_return_statement, STATE 11814),
    (sym_delete_statement, STATE 11814), (sym_raise_statement, STATE 11814),
    (sym_pass_statement, STATE 11814), (sym_break_statement, STATE 11814),
    (sym_continue_statement, STATE 11814), (sym_global_statement, STATE 11814),
    (sym_nonlocal_statement, STATE 11814), (sym_exec_statement, STATE 11814),
    (sym_type_alias_statement, STATE 11814), (sym_parameterized_alias_statement, STATE 11814),
    (sym_pattern, STATE 8086), (sym_tuple_pattern, STATE 8101), (sym_list_pattern, STATE 8101),
    (sym_list_splat_pattern, STATE 6795), (sym_as_pattern, STATE 7969),
    (sym_expression, STATE 9623), (sym_primary_expression, STATE 7326),
    (sym_comptime_expression, STATE 7017), (sym_transfer_expression, STATE 7017),
    (sym_not_operator, STATE 7969), (sym_boolean_operator, STATE 7969),
    (sym_binary_operator, STATE 7017), (sym_unary_operator, STATE 7017),
    (sym_comparison_operator, STATE 7969), (sym_lambda, STATE 7969),
    (sym_assignment, STATE 12425), (sym_augmented_assignment, STATE 12425),
    (sym_pattern_list, STATE 8578), (sym_yield, STATE 12425), (sym_attribute, STATE 6796),
    (sym_subscript, STATE 6797), (sym_call, STATE 6768), (sym_type, STATE 10130),
    (sym_called_type, STATE 9093), (sym_function_type, STATE 9093), (sym_splat_type, STATE 9093),
    (sym_generic_type, STATE 8287), (sym_union_type, STATE 9093),
    (sym_intersection_type, STATE 9093), (sym__intersection_operand, STATE 12294),
    (sym_constrained_type, STATE 9093), (sym_member_type, STATE 8165),
    (sym_mlir_type, STATE 7017), (sym_list, STATE 7017), (sym_set, STATE 7017),
    (sym_tuple, STATE 7017), (sym_dictionary, STATE 7017), (sym_struct_literal, STATE 7017),
    (sym_list_comprehension, STATE 7017), (sym_dictionary_comprehension, STATE 7017),
    (sym_set_comprehension, STATE 7017), (sym_generator_expression, STATE 7017),
    (sym_parenthesized_expression, STATE 7017), (sym_conditional_expression, STATE 7969),
    (sym_concatenated_string, STATE 7017), (sym_string, STATE 6729), (sym_await, STATE 7017),
    (sym_identifier, ACTIONS 327), (anon_sym_import, ACTIONS 11), (anon_sym_from, ACTIONS 13),
    (anon_sym_LPAREN, ACTIONS 329), (anon_sym_STAR, ACTIONS 331), (anon_sym_print, ACTIONS 333),
    (anon_sym_comptime, ACTIONS 335), (anon_sym_assert, ACTIONS 23),
    (anon_sym___comptime_assert, ACTIONS 25), (anon_sym_return, ACTIONS 27),
    (anon_sym_del, ACTIONS 29), (anon_sym_raise, ACTIONS 31), (anon_sym_pass, ACTIONS 33),
    (anon_sym_break, ACTIONS 35), (anon_sym_continue, ACTIONS 37), (anon_sym_match, ACTIONS 337),
    (anon_sym_async, ACTIONS 339), (anon_sym_def, ACTIONS 341), (anon_sym_LBRACK, ACTIONS 343),
    (anon_sym_LBRACE, ACTIONS 61), (anon_sym_STAR_STAR, ACTIONS 345),
    (anon_sym_global, ACTIONS 63), (anon_sym_nonlocal, ACTIONS 65), (anon_sym_exec, ACTIONS 347),
    (anon_sym_type, ACTIONS 349), (anon_sym_mut, ACTIONS 339), (anon_sym_out, ACTIONS 339),
    (anon_sym_DASH, ACTIONS 79), (anon_sym_PLUS, ACTIONS 79), (anon_sym_ref, ACTIONS 81),
    (anon_sym_var, ACTIONS 81), (anon_sym_not, ACTIONS 83), (anon_sym_TILDE, ACTIONS 79),
    (anon_sym_lambda, ACTIONS 85), (anon_sym_yield, ACTIONS 87), (sym_ellipsis, ACTIONS 89),
    (anon_sym___mlir_type, ACTIONS 91), (sym_integer, ACTIONS 93), (sym_float, ACTIONS 89),
    (anon_sym_await, ACTIONS 351), (sym_true, ACTIONS 93), (sym_false, ACTIONS 93),
    (sym_none, ACTIONS 93), (sym_comment, ACTIONS 3), (sym_line_continuation, ACTIONS 3),
    (sym__newline, ACTIONS 765), (sym__indent, ACTIONS 767), (sym_string_start, ACTIONS 97)]"

definition parse_table_1033 :: "(nat \<times> nat) list" where "parse_table_1033 = [
    (sym__simple_statements, STATE 6416), (sym_import_statement, STATE 11814),
    (sym_future_import_statement, STATE 11814), (sym_import_from_statement, STATE 11814),
    (sym_print_statement, STATE 11814), (sym_assert_statement, STATE 11814),
    (sym_comptime_assert_statement, STATE 11814), (sym_expression_statement, STATE 11814),
    (sym_tuple_expression, STATE 12425), (sym_named_expression, STATE 7969),
    (sym__named_expression_lhs, STATE 12752), (sym_return_statement, STATE 11814),
    (sym_delete_statement, STATE 11814), (sym_raise_statement, STATE 11814),
    (sym_pass_statement, STATE 11814), (sym_break_statement, STATE 11814),
    (sym_continue_statement, STATE 11814), (sym_global_statement, STATE 11814),
    (sym_nonlocal_statement, STATE 11814), (sym_exec_statement, STATE 11814),
    (sym_type_alias_statement, STATE 11814), (sym_parameterized_alias_statement, STATE 11814),
    (sym_pattern, STATE 8086), (sym_tuple_pattern, STATE 8101), (sym_list_pattern, STATE 8101),
    (sym_list_splat_pattern, STATE 6795), (sym_as_pattern, STATE 7969),
    (sym_expression, STATE 9623), (sym_primary_expression, STATE 7326),
    (sym_comptime_expression, STATE 7017), (sym_transfer_expression, STATE 7017),
    (sym_not_operator, STATE 7969), (sym_boolean_operator, STATE 7969),
    (sym_binary_operator, STATE 7017), (sym_unary_operator, STATE 7017),
    (sym_comparison_operator, STATE 7969), (sym_lambda, STATE 7969),
    (sym_assignment, STATE 12425), (sym_augmented_assignment, STATE 12425),
    (sym_pattern_list, STATE 8578), (sym_yield, STATE 12425), (sym_attribute, STATE 6796),
    (sym_subscript, STATE 6797), (sym_call, STATE 6768), (sym_type, STATE 10130),
    (sym_called_type, STATE 9093), (sym_function_type, STATE 9093), (sym_splat_type, STATE 9093),
    (sym_generic_type, STATE 8287), (sym_union_type, STATE 9093),
    (sym_intersection_type, STATE 9093), (sym__intersection_operand, STATE 12294),
    (sym_constrained_type, STATE 9093), (sym_member_type, STATE 8165),
    (sym_mlir_type, STATE 7017), (sym_list, STATE 7017), (sym_set, STATE 7017),
    (sym_tuple, STATE 7017), (sym_dictionary, STATE 7017), (sym_struct_literal, STATE 7017),
    (sym_list_comprehension, STATE 7017), (sym_dictionary_comprehension, STATE 7017),
    (sym_set_comprehension, STATE 7017), (sym_generator_expression, STATE 7017),
    (sym_parenthesized_expression, STATE 7017), (sym_conditional_expression, STATE 7969),
    (sym_concatenated_string, STATE 7017), (sym_string, STATE 6729), (sym_await, STATE 7017),
    (sym_identifier, ACTIONS 327), (anon_sym_import, ACTIONS 11), (anon_sym_from, ACTIONS 13),
    (anon_sym_LPAREN, ACTIONS 329), (anon_sym_STAR, ACTIONS 331), (anon_sym_print, ACTIONS 333),
    (anon_sym_comptime, ACTIONS 335), (anon_sym_assert, ACTIONS 23),
    (anon_sym___comptime_assert, ACTIONS 25), (anon_sym_return, ACTIONS 27),
    (anon_sym_del, ACTIONS 29), (anon_sym_raise, ACTIONS 31), (anon_sym_pass, ACTIONS 33),
    (anon_sym_break, ACTIONS 35), (anon_sym_continue, ACTIONS 37), (anon_sym_match, ACTIONS 337),
    (anon_sym_async, ACTIONS 339), (anon_sym_def, ACTIONS 341), (anon_sym_LBRACK, ACTIONS 343),
    (anon_sym_LBRACE, ACTIONS 61), (anon_sym_STAR_STAR, ACTIONS 345),
    (anon_sym_global, ACTIONS 63), (anon_sym_nonlocal, ACTIONS 65), (anon_sym_exec, ACTIONS 347),
    (anon_sym_type, ACTIONS 349), (anon_sym_mut, ACTIONS 339), (anon_sym_out, ACTIONS 339),
    (anon_sym_DASH, ACTIONS 79), (anon_sym_PLUS, ACTIONS 79), (anon_sym_ref, ACTIONS 81),
    (anon_sym_var, ACTIONS 81), (anon_sym_not, ACTIONS 83), (anon_sym_TILDE, ACTIONS 79),
    (anon_sym_lambda, ACTIONS 85), (anon_sym_yield, ACTIONS 87), (sym_ellipsis, ACTIONS 89),
    (anon_sym___mlir_type, ACTIONS 91), (sym_integer, ACTIONS 93), (sym_float, ACTIONS 89),
    (anon_sym_await, ACTIONS 351), (sym_true, ACTIONS 93), (sym_false, ACTIONS 93),
    (sym_none, ACTIONS 93), (sym_comment, ACTIONS 3), (sym_line_continuation, ACTIONS 3),
    (sym__newline, ACTIONS 769), (sym__indent, ACTIONS 771), (sym_string_start, ACTIONS 97)]"

definition parse_table_1034 :: "(nat \<times> nat) list" where "parse_table_1034 = [
    (sym__simple_statements, STATE 6418), (sym_import_statement, STATE 11814),
    (sym_future_import_statement, STATE 11814), (sym_import_from_statement, STATE 11814),
    (sym_print_statement, STATE 11814), (sym_assert_statement, STATE 11814),
    (sym_comptime_assert_statement, STATE 11814), (sym_expression_statement, STATE 11814),
    (sym_tuple_expression, STATE 12425), (sym_named_expression, STATE 7969),
    (sym__named_expression_lhs, STATE 12752), (sym_return_statement, STATE 11814),
    (sym_delete_statement, STATE 11814), (sym_raise_statement, STATE 11814),
    (sym_pass_statement, STATE 11814), (sym_break_statement, STATE 11814),
    (sym_continue_statement, STATE 11814), (sym_global_statement, STATE 11814),
    (sym_nonlocal_statement, STATE 11814), (sym_exec_statement, STATE 11814),
    (sym_type_alias_statement, STATE 11814), (sym_parameterized_alias_statement, STATE 11814),
    (sym_pattern, STATE 8086), (sym_tuple_pattern, STATE 8101), (sym_list_pattern, STATE 8101),
    (sym_list_splat_pattern, STATE 6795), (sym_as_pattern, STATE 7969),
    (sym_expression, STATE 9623), (sym_primary_expression, STATE 7326),
    (sym_comptime_expression, STATE 7017), (sym_transfer_expression, STATE 7017),
    (sym_not_operator, STATE 7969), (sym_boolean_operator, STATE 7969),
    (sym_binary_operator, STATE 7017), (sym_unary_operator, STATE 7017),
    (sym_comparison_operator, STATE 7969), (sym_lambda, STATE 7969),
    (sym_assignment, STATE 12425), (sym_augmented_assignment, STATE 12425),
    (sym_pattern_list, STATE 8578), (sym_yield, STATE 12425), (sym_attribute, STATE 6796),
    (sym_subscript, STATE 6797), (sym_call, STATE 6768), (sym_type, STATE 10130),
    (sym_called_type, STATE 9093), (sym_function_type, STATE 9093), (sym_splat_type, STATE 9093),
    (sym_generic_type, STATE 8287), (sym_union_type, STATE 9093),
    (sym_intersection_type, STATE 9093), (sym__intersection_operand, STATE 12294),
    (sym_constrained_type, STATE 9093), (sym_member_type, STATE 8165),
    (sym_mlir_type, STATE 7017), (sym_list, STATE 7017), (sym_set, STATE 7017),
    (sym_tuple, STATE 7017), (sym_dictionary, STATE 7017), (sym_struct_literal, STATE 7017),
    (sym_list_comprehension, STATE 7017), (sym_dictionary_comprehension, STATE 7017),
    (sym_set_comprehension, STATE 7017), (sym_generator_expression, STATE 7017),
    (sym_parenthesized_expression, STATE 7017), (sym_conditional_expression, STATE 7969),
    (sym_concatenated_string, STATE 7017), (sym_string, STATE 6729), (sym_await, STATE 7017),
    (sym_identifier, ACTIONS 327), (anon_sym_import, ACTIONS 11), (anon_sym_from, ACTIONS 13),
    (anon_sym_LPAREN, ACTIONS 329), (anon_sym_STAR, ACTIONS 331), (anon_sym_print, ACTIONS 333),
    (anon_sym_comptime, ACTIONS 335), (anon_sym_assert, ACTIONS 23),
    (anon_sym___comptime_assert, ACTIONS 25), (anon_sym_return, ACTIONS 27),
    (anon_sym_del, ACTIONS 29), (anon_sym_raise, ACTIONS 31), (anon_sym_pass, ACTIONS 33),
    (anon_sym_break, ACTIONS 35), (anon_sym_continue, ACTIONS 37), (anon_sym_match, ACTIONS 337),
    (anon_sym_async, ACTIONS 339), (anon_sym_def, ACTIONS 341), (anon_sym_LBRACK, ACTIONS 343),
    (anon_sym_LBRACE, ACTIONS 61), (anon_sym_STAR_STAR, ACTIONS 345),
    (anon_sym_global, ACTIONS 63), (anon_sym_nonlocal, ACTIONS 65), (anon_sym_exec, ACTIONS 347),
    (anon_sym_type, ACTIONS 349), (anon_sym_mut, ACTIONS 339), (anon_sym_out, ACTIONS 339),
    (anon_sym_DASH, ACTIONS 79), (anon_sym_PLUS, ACTIONS 79), (anon_sym_ref, ACTIONS 81),
    (anon_sym_var, ACTIONS 81), (anon_sym_not, ACTIONS 83), (anon_sym_TILDE, ACTIONS 79),
    (anon_sym_lambda, ACTIONS 85), (anon_sym_yield, ACTIONS 87), (sym_ellipsis, ACTIONS 89),
    (anon_sym___mlir_type, ACTIONS 91), (sym_integer, ACTIONS 93), (sym_float, ACTIONS 89),
    (anon_sym_await, ACTIONS 351), (sym_true, ACTIONS 93), (sym_false, ACTIONS 93),
    (sym_none, ACTIONS 93), (sym_comment, ACTIONS 3), (sym_line_continuation, ACTIONS 3),
    (sym__newline, ACTIONS 773), (sym__indent, ACTIONS 775), (sym_string_start, ACTIONS 97)]"

definition parse_table_1035 :: "(nat \<times> nat) list" where "parse_table_1035 = [
    (sym__simple_statements, STATE 5585), (sym_import_statement, STATE 11814),
    (sym_future_import_statement, STATE 11814), (sym_import_from_statement, STATE 11814),
    (sym_print_statement, STATE 11814), (sym_assert_statement, STATE 11814),
    (sym_comptime_assert_statement, STATE 11814), (sym_expression_statement, STATE 11814),
    (sym_tuple_expression, STATE 12425), (sym_named_expression, STATE 7969),
    (sym__named_expression_lhs, STATE 12752), (sym_return_statement, STATE 11814),
    (sym_delete_statement, STATE 11814), (sym_raise_statement, STATE 11814),
    (sym_pass_statement, STATE 11814), (sym_break_statement, STATE 11814),
    (sym_continue_statement, STATE 11814), (sym_global_statement, STATE 11814),
    (sym_nonlocal_statement, STATE 11814), (sym_exec_statement, STATE 11814),
    (sym_type_alias_statement, STATE 11814), (sym_parameterized_alias_statement, STATE 11814),
    (sym_pattern, STATE 8086), (sym_tuple_pattern, STATE 8101), (sym_list_pattern, STATE 8101),
    (sym_list_splat_pattern, STATE 6795), (sym_as_pattern, STATE 7969),
    (sym_expression, STATE 9623), (sym_primary_expression, STATE 7326),
    (sym_comptime_expression, STATE 7017), (sym_transfer_expression, STATE 7017),
    (sym_not_operator, STATE 7969), (sym_boolean_operator, STATE 7969),
    (sym_binary_operator, STATE 7017), (sym_unary_operator, STATE 7017),
    (sym_comparison_operator, STATE 7969), (sym_lambda, STATE 7969),
    (sym_assignment, STATE 12425), (sym_augmented_assignment, STATE 12425),
    (sym_pattern_list, STATE 8578), (sym_yield, STATE 12425), (sym_attribute, STATE 6796),
    (sym_subscript, STATE 6797), (sym_call, STATE 6768), (sym_type, STATE 10130),
    (sym_called_type, STATE 9093), (sym_function_type, STATE 9093), (sym_splat_type, STATE 9093),
    (sym_generic_type, STATE 8287), (sym_union_type, STATE 9093),
    (sym_intersection_type, STATE 9093), (sym__intersection_operand, STATE 12294),
    (sym_constrained_type, STATE 9093), (sym_member_type, STATE 8165),
    (sym_mlir_type, STATE 7017), (sym_list, STATE 7017), (sym_set, STATE 7017),
    (sym_tuple, STATE 7017), (sym_dictionary, STATE 7017), (sym_struct_literal, STATE 7017),
    (sym_list_comprehension, STATE 7017), (sym_dictionary_comprehension, STATE 7017),
    (sym_set_comprehension, STATE 7017), (sym_generator_expression, STATE 7017),
    (sym_parenthesized_expression, STATE 7017), (sym_conditional_expression, STATE 7969),
    (sym_concatenated_string, STATE 7017), (sym_string, STATE 6729), (sym_await, STATE 7017),
    (sym_identifier, ACTIONS 327), (anon_sym_import, ACTIONS 11), (anon_sym_from, ACTIONS 13),
    (anon_sym_LPAREN, ACTIONS 329), (anon_sym_STAR, ACTIONS 331), (anon_sym_print, ACTIONS 333),
    (anon_sym_comptime, ACTIONS 335), (anon_sym_assert, ACTIONS 23),
    (anon_sym___comptime_assert, ACTIONS 25), (anon_sym_return, ACTIONS 27),
    (anon_sym_del, ACTIONS 29), (anon_sym_raise, ACTIONS 31), (anon_sym_pass, ACTIONS 33),
    (anon_sym_break, ACTIONS 35), (anon_sym_continue, ACTIONS 37), (anon_sym_match, ACTIONS 337),
    (anon_sym_async, ACTIONS 339), (anon_sym_def, ACTIONS 341), (anon_sym_LBRACK, ACTIONS 343),
    (anon_sym_LBRACE, ACTIONS 61), (anon_sym_STAR_STAR, ACTIONS 345),
    (anon_sym_global, ACTIONS 63), (anon_sym_nonlocal, ACTIONS 65), (anon_sym_exec, ACTIONS 347),
    (anon_sym_type, ACTIONS 349), (anon_sym_mut, ACTIONS 339), (anon_sym_out, ACTIONS 339),
    (anon_sym_DASH, ACTIONS 79), (anon_sym_PLUS, ACTIONS 79), (anon_sym_ref, ACTIONS 81),
    (anon_sym_var, ACTIONS 81), (anon_sym_not, ACTIONS 83), (anon_sym_TILDE, ACTIONS 79),
    (anon_sym_lambda, ACTIONS 85), (anon_sym_yield, ACTIONS 87), (sym_ellipsis, ACTIONS 89),
    (anon_sym___mlir_type, ACTIONS 91), (sym_integer, ACTIONS 93), (sym_float, ACTIONS 89),
    (anon_sym_await, ACTIONS 351), (sym_true, ACTIONS 93), (sym_false, ACTIONS 93),
    (sym_none, ACTIONS 93), (sym_comment, ACTIONS 3), (sym_line_continuation, ACTIONS 3),
    (sym__newline, ACTIONS 777), (sym__indent, ACTIONS 779), (sym_string_start, ACTIONS 97)]"

definition parse_table_1036 :: "(nat \<times> nat) list" where "parse_table_1036 = [
    (sym__simple_statements, STATE 6425), (sym_import_statement, STATE 11814),
    (sym_future_import_statement, STATE 11814), (sym_import_from_statement, STATE 11814),
    (sym_print_statement, STATE 11814), (sym_assert_statement, STATE 11814),
    (sym_comptime_assert_statement, STATE 11814), (sym_expression_statement, STATE 11814),
    (sym_tuple_expression, STATE 12425), (sym_named_expression, STATE 7969),
    (sym__named_expression_lhs, STATE 12752), (sym_return_statement, STATE 11814),
    (sym_delete_statement, STATE 11814), (sym_raise_statement, STATE 11814),
    (sym_pass_statement, STATE 11814), (sym_break_statement, STATE 11814),
    (sym_continue_statement, STATE 11814), (sym_global_statement, STATE 11814),
    (sym_nonlocal_statement, STATE 11814), (sym_exec_statement, STATE 11814),
    (sym_type_alias_statement, STATE 11814), (sym_parameterized_alias_statement, STATE 11814),
    (sym_pattern, STATE 8086), (sym_tuple_pattern, STATE 8101), (sym_list_pattern, STATE 8101),
    (sym_list_splat_pattern, STATE 6795), (sym_as_pattern, STATE 7969),
    (sym_expression, STATE 9623), (sym_primary_expression, STATE 7326),
    (sym_comptime_expression, STATE 7017), (sym_transfer_expression, STATE 7017),
    (sym_not_operator, STATE 7969), (sym_boolean_operator, STATE 7969),
    (sym_binary_operator, STATE 7017), (sym_unary_operator, STATE 7017),
    (sym_comparison_operator, STATE 7969), (sym_lambda, STATE 7969),
    (sym_assignment, STATE 12425), (sym_augmented_assignment, STATE 12425),
    (sym_pattern_list, STATE 8578), (sym_yield, STATE 12425), (sym_attribute, STATE 6796),
    (sym_subscript, STATE 6797), (sym_call, STATE 6768), (sym_type, STATE 10130),
    (sym_called_type, STATE 9093), (sym_function_type, STATE 9093), (sym_splat_type, STATE 9093),
    (sym_generic_type, STATE 8287), (sym_union_type, STATE 9093),
    (sym_intersection_type, STATE 9093), (sym__intersection_operand, STATE 12294),
    (sym_constrained_type, STATE 9093), (sym_member_type, STATE 8165),
    (sym_mlir_type, STATE 7017), (sym_list, STATE 7017), (sym_set, STATE 7017),
    (sym_tuple, STATE 7017), (sym_dictionary, STATE 7017), (sym_struct_literal, STATE 7017),
    (sym_list_comprehension, STATE 7017), (sym_dictionary_comprehension, STATE 7017),
    (sym_set_comprehension, STATE 7017), (sym_generator_expression, STATE 7017),
    (sym_parenthesized_expression, STATE 7017), (sym_conditional_expression, STATE 7969),
    (sym_concatenated_string, STATE 7017), (sym_string, STATE 6729), (sym_await, STATE 7017),
    (sym_identifier, ACTIONS 327), (anon_sym_import, ACTIONS 11), (anon_sym_from, ACTIONS 13),
    (anon_sym_LPAREN, ACTIONS 329), (anon_sym_STAR, ACTIONS 331), (anon_sym_print, ACTIONS 333),
    (anon_sym_comptime, ACTIONS 335), (anon_sym_assert, ACTIONS 23),
    (anon_sym___comptime_assert, ACTIONS 25), (anon_sym_return, ACTIONS 27),
    (anon_sym_del, ACTIONS 29), (anon_sym_raise, ACTIONS 31), (anon_sym_pass, ACTIONS 33),
    (anon_sym_break, ACTIONS 35), (anon_sym_continue, ACTIONS 37), (anon_sym_match, ACTIONS 337),
    (anon_sym_async, ACTIONS 339), (anon_sym_def, ACTIONS 341), (anon_sym_LBRACK, ACTIONS 343),
    (anon_sym_LBRACE, ACTIONS 61), (anon_sym_STAR_STAR, ACTIONS 345),
    (anon_sym_global, ACTIONS 63), (anon_sym_nonlocal, ACTIONS 65), (anon_sym_exec, ACTIONS 347),
    (anon_sym_type, ACTIONS 349), (anon_sym_mut, ACTIONS 339), (anon_sym_out, ACTIONS 339),
    (anon_sym_DASH, ACTIONS 79), (anon_sym_PLUS, ACTIONS 79), (anon_sym_ref, ACTIONS 81),
    (anon_sym_var, ACTIONS 81), (anon_sym_not, ACTIONS 83), (anon_sym_TILDE, ACTIONS 79),
    (anon_sym_lambda, ACTIONS 85), (anon_sym_yield, ACTIONS 87), (sym_ellipsis, ACTIONS 89),
    (anon_sym___mlir_type, ACTIONS 91), (sym_integer, ACTIONS 93), (sym_float, ACTIONS 89),
    (anon_sym_await, ACTIONS 351), (sym_true, ACTIONS 93), (sym_false, ACTIONS 93),
    (sym_none, ACTIONS 93), (sym_comment, ACTIONS 3), (sym_line_continuation, ACTIONS 3),
    (sym__newline, ACTIONS 781), (sym__indent, ACTIONS 783), (sym_string_start, ACTIONS 97)]"

definition parse_table_1037 :: "(nat \<times> nat) list" where "parse_table_1037 = [
    (sym__simple_statements, STATE 5059), (sym_import_statement, STATE 12239),
    (sym_future_import_statement, STATE 12239), (sym_import_from_statement, STATE 12239),
    (sym_print_statement, STATE 12239), (sym_assert_statement, STATE 12239),
    (sym_comptime_assert_statement, STATE 12239), (sym_expression_statement, STATE 12239),
    (sym_tuple_expression, STATE 12425), (sym_named_expression, STATE 7969),
    (sym__named_expression_lhs, STATE 12752), (sym_return_statement, STATE 12239),
    (sym_delete_statement, STATE 12239), (sym_raise_statement, STATE 12239),
    (sym_pass_statement, STATE 12239), (sym_break_statement, STATE 12239),
    (sym_continue_statement, STATE 12239), (sym_global_statement, STATE 12239),
    (sym_nonlocal_statement, STATE 12239), (sym_exec_statement, STATE 12239),
    (sym_type_alias_statement, STATE 12239), (sym_parameterized_alias_statement, STATE 12239),
    (sym_pattern, STATE 8086), (sym_tuple_pattern, STATE 8101), (sym_list_pattern, STATE 8101),
    (sym_list_splat_pattern, STATE 6795), (sym_as_pattern, STATE 7969),
    (sym_expression, STATE 9623), (sym_primary_expression, STATE 7326),
    (sym_comptime_expression, STATE 7017), (sym_transfer_expression, STATE 7017),
    (sym_not_operator, STATE 7969), (sym_boolean_operator, STATE 7969),
    (sym_binary_operator, STATE 7017), (sym_unary_operator, STATE 7017),
    (sym_comparison_operator, STATE 7969), (sym_lambda, STATE 7969),
    (sym_assignment, STATE 12425), (sym_augmented_assignment, STATE 12425),
    (sym_pattern_list, STATE 8578), (sym_yield, STATE 12425), (sym_attribute, STATE 6796),
    (sym_subscript, STATE 6797), (sym_call, STATE 6768), (sym_type, STATE 10130),
    (sym_called_type, STATE 9093), (sym_function_type, STATE 9093), (sym_splat_type, STATE 9093),
    (sym_generic_type, STATE 8287), (sym_union_type, STATE 9093),
    (sym_intersection_type, STATE 9093), (sym__intersection_operand, STATE 12294),
    (sym_constrained_type, STATE 9093), (sym_member_type, STATE 8165),
    (sym_mlir_type, STATE 7017), (sym_list, STATE 7017), (sym_set, STATE 7017),
    (sym_tuple, STATE 7017), (sym_dictionary, STATE 7017), (sym_struct_literal, STATE 7017),
    (sym_list_comprehension, STATE 7017), (sym_dictionary_comprehension, STATE 7017),
    (sym_set_comprehension, STATE 7017), (sym_generator_expression, STATE 7017),
    (sym_parenthesized_expression, STATE 7017), (sym_conditional_expression, STATE 7969),
    (sym_concatenated_string, STATE 7017), (sym_string, STATE 6729), (sym_await, STATE 7017),
    (sym_identifier, ACTIONS 327), (anon_sym_import, ACTIONS 11), (anon_sym_from, ACTIONS 13),
    (anon_sym_LPAREN, ACTIONS 329), (anon_sym_STAR, ACTIONS 331), (anon_sym_print, ACTIONS 333),
    (anon_sym_comptime, ACTIONS 335), (anon_sym_assert, ACTIONS 23),
    (anon_sym___comptime_assert, ACTIONS 25), (anon_sym_return, ACTIONS 27),
    (anon_sym_del, ACTIONS 29), (anon_sym_raise, ACTIONS 31), (anon_sym_pass, ACTIONS 33),
    (anon_sym_break, ACTIONS 35), (anon_sym_continue, ACTIONS 37), (anon_sym_match, ACTIONS 337),
    (anon_sym_async, ACTIONS 339), (anon_sym_def, ACTIONS 341), (anon_sym_LBRACK, ACTIONS 343),
    (anon_sym_LBRACE, ACTIONS 61), (anon_sym_STAR_STAR, ACTIONS 345),
    (anon_sym_global, ACTIONS 63), (anon_sym_nonlocal, ACTIONS 65), (anon_sym_exec, ACTIONS 347),
    (anon_sym_type, ACTIONS 349), (anon_sym_mut, ACTIONS 339), (anon_sym_out, ACTIONS 339),
    (anon_sym_DASH, ACTIONS 79), (anon_sym_PLUS, ACTIONS 79), (anon_sym_ref, ACTIONS 81),
    (anon_sym_var, ACTIONS 81), (anon_sym_not, ACTIONS 83), (anon_sym_TILDE, ACTIONS 79),
    (anon_sym_lambda, ACTIONS 85), (anon_sym_yield, ACTIONS 87), (sym_ellipsis, ACTIONS 89),
    (anon_sym___mlir_type, ACTIONS 91), (sym_integer, ACTIONS 93), (sym_float, ACTIONS 89),
    (anon_sym_await, ACTIONS 351), (sym_true, ACTIONS 93), (sym_false, ACTIONS 93),
    (sym_none, ACTIONS 93), (sym_comment, ACTIONS 3), (sym_line_continuation, ACTIONS 3),
    (sym__newline, ACTIONS 785), (sym__indent, ACTIONS 787), (sym_string_start, ACTIONS 97)]"

definition parse_table_1038 :: "(nat \<times> nat) list" where "parse_table_1038 = [
    (sym__simple_statements, STATE 5590), (sym_import_statement, STATE 11814),
    (sym_future_import_statement, STATE 11814), (sym_import_from_statement, STATE 11814),
    (sym_print_statement, STATE 11814), (sym_assert_statement, STATE 11814),
    (sym_comptime_assert_statement, STATE 11814), (sym_expression_statement, STATE 11814),
    (sym_tuple_expression, STATE 12425), (sym_named_expression, STATE 7969),
    (sym__named_expression_lhs, STATE 12752), (sym_return_statement, STATE 11814),
    (sym_delete_statement, STATE 11814), (sym_raise_statement, STATE 11814),
    (sym_pass_statement, STATE 11814), (sym_break_statement, STATE 11814),
    (sym_continue_statement, STATE 11814), (sym_global_statement, STATE 11814),
    (sym_nonlocal_statement, STATE 11814), (sym_exec_statement, STATE 11814),
    (sym_type_alias_statement, STATE 11814), (sym_parameterized_alias_statement, STATE 11814),
    (sym_pattern, STATE 8086), (sym_tuple_pattern, STATE 8101), (sym_list_pattern, STATE 8101),
    (sym_list_splat_pattern, STATE 6795), (sym_as_pattern, STATE 7969),
    (sym_expression, STATE 9623), (sym_primary_expression, STATE 7326),
    (sym_comptime_expression, STATE 7017), (sym_transfer_expression, STATE 7017),
    (sym_not_operator, STATE 7969), (sym_boolean_operator, STATE 7969),
    (sym_binary_operator, STATE 7017), (sym_unary_operator, STATE 7017),
    (sym_comparison_operator, STATE 7969), (sym_lambda, STATE 7969),
    (sym_assignment, STATE 12425), (sym_augmented_assignment, STATE 12425),
    (sym_pattern_list, STATE 8578), (sym_yield, STATE 12425), (sym_attribute, STATE 6796),
    (sym_subscript, STATE 6797), (sym_call, STATE 6768), (sym_type, STATE 10130),
    (sym_called_type, STATE 9093), (sym_function_type, STATE 9093), (sym_splat_type, STATE 9093),
    (sym_generic_type, STATE 8287), (sym_union_type, STATE 9093),
    (sym_intersection_type, STATE 9093), (sym__intersection_operand, STATE 12294),
    (sym_constrained_type, STATE 9093), (sym_member_type, STATE 8165),
    (sym_mlir_type, STATE 7017), (sym_list, STATE 7017), (sym_set, STATE 7017),
    (sym_tuple, STATE 7017), (sym_dictionary, STATE 7017), (sym_struct_literal, STATE 7017),
    (sym_list_comprehension, STATE 7017), (sym_dictionary_comprehension, STATE 7017),
    (sym_set_comprehension, STATE 7017), (sym_generator_expression, STATE 7017),
    (sym_parenthesized_expression, STATE 7017), (sym_conditional_expression, STATE 7969),
    (sym_concatenated_string, STATE 7017), (sym_string, STATE 6729), (sym_await, STATE 7017),
    (sym_identifier, ACTIONS 327), (anon_sym_import, ACTIONS 11), (anon_sym_from, ACTIONS 13),
    (anon_sym_LPAREN, ACTIONS 329), (anon_sym_STAR, ACTIONS 331), (anon_sym_print, ACTIONS 333),
    (anon_sym_comptime, ACTIONS 335), (anon_sym_assert, ACTIONS 23),
    (anon_sym___comptime_assert, ACTIONS 25), (anon_sym_return, ACTIONS 27),
    (anon_sym_del, ACTIONS 29), (anon_sym_raise, ACTIONS 31), (anon_sym_pass, ACTIONS 33),
    (anon_sym_break, ACTIONS 35), (anon_sym_continue, ACTIONS 37), (anon_sym_match, ACTIONS 337),
    (anon_sym_async, ACTIONS 339), (anon_sym_def, ACTIONS 341), (anon_sym_LBRACK, ACTIONS 343),
    (anon_sym_LBRACE, ACTIONS 61), (anon_sym_STAR_STAR, ACTIONS 345),
    (anon_sym_global, ACTIONS 63), (anon_sym_nonlocal, ACTIONS 65), (anon_sym_exec, ACTIONS 347),
    (anon_sym_type, ACTIONS 349), (anon_sym_mut, ACTIONS 339), (anon_sym_out, ACTIONS 339),
    (anon_sym_DASH, ACTIONS 79), (anon_sym_PLUS, ACTIONS 79), (anon_sym_ref, ACTIONS 81),
    (anon_sym_var, ACTIONS 81), (anon_sym_not, ACTIONS 83), (anon_sym_TILDE, ACTIONS 79),
    (anon_sym_lambda, ACTIONS 85), (anon_sym_yield, ACTIONS 87), (sym_ellipsis, ACTIONS 89),
    (anon_sym___mlir_type, ACTIONS 91), (sym_integer, ACTIONS 93), (sym_float, ACTIONS 89),
    (anon_sym_await, ACTIONS 351), (sym_true, ACTIONS 93), (sym_false, ACTIONS 93),
    (sym_none, ACTIONS 93), (sym_comment, ACTIONS 3), (sym_line_continuation, ACTIONS 3),
    (sym__newline, ACTIONS 789), (sym__indent, ACTIONS 791), (sym_string_start, ACTIONS 97)]"

definition parse_table_1039 :: "(nat \<times> nat) list" where "parse_table_1039 = [
    (sym__simple_statements, STATE 4515), (sym_import_statement, STATE 12239),
    (sym_future_import_statement, STATE 12239), (sym_import_from_statement, STATE 12239),
    (sym_print_statement, STATE 12239), (sym_assert_statement, STATE 12239),
    (sym_comptime_assert_statement, STATE 12239), (sym_expression_statement, STATE 12239),
    (sym_tuple_expression, STATE 12425), (sym_named_expression, STATE 7969),
    (sym__named_expression_lhs, STATE 12752), (sym_return_statement, STATE 12239),
    (sym_delete_statement, STATE 12239), (sym_raise_statement, STATE 12239),
    (sym_pass_statement, STATE 12239), (sym_break_statement, STATE 12239),
    (sym_continue_statement, STATE 12239), (sym_global_statement, STATE 12239),
    (sym_nonlocal_statement, STATE 12239), (sym_exec_statement, STATE 12239),
    (sym_type_alias_statement, STATE 12239), (sym_parameterized_alias_statement, STATE 12239),
    (sym_pattern, STATE 8086), (sym_tuple_pattern, STATE 8101), (sym_list_pattern, STATE 8101),
    (sym_list_splat_pattern, STATE 6795), (sym_as_pattern, STATE 7969),
    (sym_expression, STATE 9623), (sym_primary_expression, STATE 7326),
    (sym_comptime_expression, STATE 7017), (sym_transfer_expression, STATE 7017),
    (sym_not_operator, STATE 7969), (sym_boolean_operator, STATE 7969),
    (sym_binary_operator, STATE 7017), (sym_unary_operator, STATE 7017),
    (sym_comparison_operator, STATE 7969), (sym_lambda, STATE 7969),
    (sym_assignment, STATE 12425), (sym_augmented_assignment, STATE 12425),
    (sym_pattern_list, STATE 8578), (sym_yield, STATE 12425), (sym_attribute, STATE 6796),
    (sym_subscript, STATE 6797), (sym_call, STATE 6768), (sym_type, STATE 10130),
    (sym_called_type, STATE 9093), (sym_function_type, STATE 9093), (sym_splat_type, STATE 9093),
    (sym_generic_type, STATE 8287), (sym_union_type, STATE 9093),
    (sym_intersection_type, STATE 9093), (sym__intersection_operand, STATE 12294),
    (sym_constrained_type, STATE 9093), (sym_member_type, STATE 8165),
    (sym_mlir_type, STATE 7017), (sym_list, STATE 7017), (sym_set, STATE 7017),
    (sym_tuple, STATE 7017), (sym_dictionary, STATE 7017), (sym_struct_literal, STATE 7017),
    (sym_list_comprehension, STATE 7017), (sym_dictionary_comprehension, STATE 7017),
    (sym_set_comprehension, STATE 7017), (sym_generator_expression, STATE 7017),
    (sym_parenthesized_expression, STATE 7017), (sym_conditional_expression, STATE 7969),
    (sym_concatenated_string, STATE 7017), (sym_string, STATE 6729), (sym_await, STATE 7017),
    (sym_identifier, ACTIONS 327), (anon_sym_import, ACTIONS 11), (anon_sym_from, ACTIONS 13),
    (anon_sym_LPAREN, ACTIONS 329), (anon_sym_STAR, ACTIONS 331), (anon_sym_print, ACTIONS 333),
    (anon_sym_comptime, ACTIONS 335), (anon_sym_assert, ACTIONS 23),
    (anon_sym___comptime_assert, ACTIONS 25), (anon_sym_return, ACTIONS 27),
    (anon_sym_del, ACTIONS 29), (anon_sym_raise, ACTIONS 31), (anon_sym_pass, ACTIONS 33),
    (anon_sym_break, ACTIONS 35), (anon_sym_continue, ACTIONS 37), (anon_sym_match, ACTIONS 337),
    (anon_sym_async, ACTIONS 339), (anon_sym_def, ACTIONS 341), (anon_sym_LBRACK, ACTIONS 343),
    (anon_sym_LBRACE, ACTIONS 61), (anon_sym_STAR_STAR, ACTIONS 345),
    (anon_sym_global, ACTIONS 63), (anon_sym_nonlocal, ACTIONS 65), (anon_sym_exec, ACTIONS 347),
    (anon_sym_type, ACTIONS 349), (anon_sym_mut, ACTIONS 339), (anon_sym_out, ACTIONS 339),
    (anon_sym_DASH, ACTIONS 79), (anon_sym_PLUS, ACTIONS 79), (anon_sym_ref, ACTIONS 81),
    (anon_sym_var, ACTIONS 81), (anon_sym_not, ACTIONS 83), (anon_sym_TILDE, ACTIONS 79),
    (anon_sym_lambda, ACTIONS 85), (anon_sym_yield, ACTIONS 87), (sym_ellipsis, ACTIONS 89),
    (anon_sym___mlir_type, ACTIONS 91), (sym_integer, ACTIONS 93), (sym_float, ACTIONS 89),
    (anon_sym_await, ACTIONS 351), (sym_true, ACTIONS 93), (sym_false, ACTIONS 93),
    (sym_none, ACTIONS 93), (sym_comment, ACTIONS 3), (sym_line_continuation, ACTIONS 3),
    (sym__newline, ACTIONS 793), (sym__indent, ACTIONS 795), (sym_string_start, ACTIONS 97)]"

definition parse_table_1040 :: "(nat \<times> nat) list" where "parse_table_1040 = [
    (sym__simple_statements, STATE 6430), (sym_import_statement, STATE 11814),
    (sym_future_import_statement, STATE 11814), (sym_import_from_statement, STATE 11814),
    (sym_print_statement, STATE 11814), (sym_assert_statement, STATE 11814),
    (sym_comptime_assert_statement, STATE 11814), (sym_expression_statement, STATE 11814),
    (sym_tuple_expression, STATE 12425), (sym_named_expression, STATE 7969),
    (sym__named_expression_lhs, STATE 12752), (sym_return_statement, STATE 11814),
    (sym_delete_statement, STATE 11814), (sym_raise_statement, STATE 11814),
    (sym_pass_statement, STATE 11814), (sym_break_statement, STATE 11814),
    (sym_continue_statement, STATE 11814), (sym_global_statement, STATE 11814),
    (sym_nonlocal_statement, STATE 11814), (sym_exec_statement, STATE 11814),
    (sym_type_alias_statement, STATE 11814), (sym_parameterized_alias_statement, STATE 11814),
    (sym_pattern, STATE 8086), (sym_tuple_pattern, STATE 8101), (sym_list_pattern, STATE 8101),
    (sym_list_splat_pattern, STATE 6795), (sym_as_pattern, STATE 7969),
    (sym_expression, STATE 9623), (sym_primary_expression, STATE 7326),
    (sym_comptime_expression, STATE 7017), (sym_transfer_expression, STATE 7017),
    (sym_not_operator, STATE 7969), (sym_boolean_operator, STATE 7969),
    (sym_binary_operator, STATE 7017), (sym_unary_operator, STATE 7017),
    (sym_comparison_operator, STATE 7969), (sym_lambda, STATE 7969),
    (sym_assignment, STATE 12425), (sym_augmented_assignment, STATE 12425),
    (sym_pattern_list, STATE 8578), (sym_yield, STATE 12425), (sym_attribute, STATE 6796),
    (sym_subscript, STATE 6797), (sym_call, STATE 6768), (sym_type, STATE 10130),
    (sym_called_type, STATE 9093), (sym_function_type, STATE 9093), (sym_splat_type, STATE 9093),
    (sym_generic_type, STATE 8287), (sym_union_type, STATE 9093),
    (sym_intersection_type, STATE 9093), (sym__intersection_operand, STATE 12294),
    (sym_constrained_type, STATE 9093), (sym_member_type, STATE 8165),
    (sym_mlir_type, STATE 7017), (sym_list, STATE 7017), (sym_set, STATE 7017),
    (sym_tuple, STATE 7017), (sym_dictionary, STATE 7017), (sym_struct_literal, STATE 7017),
    (sym_list_comprehension, STATE 7017), (sym_dictionary_comprehension, STATE 7017),
    (sym_set_comprehension, STATE 7017), (sym_generator_expression, STATE 7017),
    (sym_parenthesized_expression, STATE 7017), (sym_conditional_expression, STATE 7969),
    (sym_concatenated_string, STATE 7017), (sym_string, STATE 6729), (sym_await, STATE 7017),
    (sym_identifier, ACTIONS 327), (anon_sym_import, ACTIONS 11), (anon_sym_from, ACTIONS 13),
    (anon_sym_LPAREN, ACTIONS 329), (anon_sym_STAR, ACTIONS 331), (anon_sym_print, ACTIONS 333),
    (anon_sym_comptime, ACTIONS 335), (anon_sym_assert, ACTIONS 23),
    (anon_sym___comptime_assert, ACTIONS 25), (anon_sym_return, ACTIONS 27),
    (anon_sym_del, ACTIONS 29), (anon_sym_raise, ACTIONS 31), (anon_sym_pass, ACTIONS 33),
    (anon_sym_break, ACTIONS 35), (anon_sym_continue, ACTIONS 37), (anon_sym_match, ACTIONS 337),
    (anon_sym_async, ACTIONS 339), (anon_sym_def, ACTIONS 341), (anon_sym_LBRACK, ACTIONS 343),
    (anon_sym_LBRACE, ACTIONS 61), (anon_sym_STAR_STAR, ACTIONS 345),
    (anon_sym_global, ACTIONS 63), (anon_sym_nonlocal, ACTIONS 65), (anon_sym_exec, ACTIONS 347),
    (anon_sym_type, ACTIONS 349), (anon_sym_mut, ACTIONS 339), (anon_sym_out, ACTIONS 339),
    (anon_sym_DASH, ACTIONS 79), (anon_sym_PLUS, ACTIONS 79), (anon_sym_ref, ACTIONS 81),
    (anon_sym_var, ACTIONS 81), (anon_sym_not, ACTIONS 83), (anon_sym_TILDE, ACTIONS 79),
    (anon_sym_lambda, ACTIONS 85), (anon_sym_yield, ACTIONS 87), (sym_ellipsis, ACTIONS 89),
    (anon_sym___mlir_type, ACTIONS 91), (sym_integer, ACTIONS 93), (sym_float, ACTIONS 89),
    (anon_sym_await, ACTIONS 351), (sym_true, ACTIONS 93), (sym_false, ACTIONS 93),
    (sym_none, ACTIONS 93), (sym_comment, ACTIONS 3), (sym_line_continuation, ACTIONS 3),
    (sym__newline, ACTIONS 797), (sym__indent, ACTIONS 799), (sym_string_start, ACTIONS 97)]"

definition parse_table_1041 :: "(nat \<times> nat) list" where "parse_table_1041 = [
    (sym__simple_statements, STATE 6433), (sym_import_statement, STATE 11814),
    (sym_future_import_statement, STATE 11814), (sym_import_from_statement, STATE 11814),
    (sym_print_statement, STATE 11814), (sym_assert_statement, STATE 11814),
    (sym_comptime_assert_statement, STATE 11814), (sym_expression_statement, STATE 11814),
    (sym_tuple_expression, STATE 12425), (sym_named_expression, STATE 7969),
    (sym__named_expression_lhs, STATE 12752), (sym_return_statement, STATE 11814),
    (sym_delete_statement, STATE 11814), (sym_raise_statement, STATE 11814),
    (sym_pass_statement, STATE 11814), (sym_break_statement, STATE 11814),
    (sym_continue_statement, STATE 11814), (sym_global_statement, STATE 11814),
    (sym_nonlocal_statement, STATE 11814), (sym_exec_statement, STATE 11814),
    (sym_type_alias_statement, STATE 11814), (sym_parameterized_alias_statement, STATE 11814),
    (sym_pattern, STATE 8086), (sym_tuple_pattern, STATE 8101), (sym_list_pattern, STATE 8101),
    (sym_list_splat_pattern, STATE 6795), (sym_as_pattern, STATE 7969),
    (sym_expression, STATE 9623), (sym_primary_expression, STATE 7326),
    (sym_comptime_expression, STATE 7017), (sym_transfer_expression, STATE 7017),
    (sym_not_operator, STATE 7969), (sym_boolean_operator, STATE 7969),
    (sym_binary_operator, STATE 7017), (sym_unary_operator, STATE 7017),
    (sym_comparison_operator, STATE 7969), (sym_lambda, STATE 7969),
    (sym_assignment, STATE 12425), (sym_augmented_assignment, STATE 12425),
    (sym_pattern_list, STATE 8578), (sym_yield, STATE 12425), (sym_attribute, STATE 6796),
    (sym_subscript, STATE 6797), (sym_call, STATE 6768), (sym_type, STATE 10130),
    (sym_called_type, STATE 9093), (sym_function_type, STATE 9093), (sym_splat_type, STATE 9093),
    (sym_generic_type, STATE 8287), (sym_union_type, STATE 9093),
    (sym_intersection_type, STATE 9093), (sym__intersection_operand, STATE 12294),
    (sym_constrained_type, STATE 9093), (sym_member_type, STATE 8165),
    (sym_mlir_type, STATE 7017), (sym_list, STATE 7017), (sym_set, STATE 7017),
    (sym_tuple, STATE 7017), (sym_dictionary, STATE 7017), (sym_struct_literal, STATE 7017),
    (sym_list_comprehension, STATE 7017), (sym_dictionary_comprehension, STATE 7017),
    (sym_set_comprehension, STATE 7017), (sym_generator_expression, STATE 7017),
    (sym_parenthesized_expression, STATE 7017), (sym_conditional_expression, STATE 7969),
    (sym_concatenated_string, STATE 7017), (sym_string, STATE 6729), (sym_await, STATE 7017),
    (sym_identifier, ACTIONS 327), (anon_sym_import, ACTIONS 11), (anon_sym_from, ACTIONS 13),
    (anon_sym_LPAREN, ACTIONS 329), (anon_sym_STAR, ACTIONS 331), (anon_sym_print, ACTIONS 333),
    (anon_sym_comptime, ACTIONS 335), (anon_sym_assert, ACTIONS 23),
    (anon_sym___comptime_assert, ACTIONS 25), (anon_sym_return, ACTIONS 27),
    (anon_sym_del, ACTIONS 29), (anon_sym_raise, ACTIONS 31), (anon_sym_pass, ACTIONS 33),
    (anon_sym_break, ACTIONS 35), (anon_sym_continue, ACTIONS 37), (anon_sym_match, ACTIONS 337),
    (anon_sym_async, ACTIONS 339), (anon_sym_def, ACTIONS 341), (anon_sym_LBRACK, ACTIONS 343),
    (anon_sym_LBRACE, ACTIONS 61), (anon_sym_STAR_STAR, ACTIONS 345),
    (anon_sym_global, ACTIONS 63), (anon_sym_nonlocal, ACTIONS 65), (anon_sym_exec, ACTIONS 347),
    (anon_sym_type, ACTIONS 349), (anon_sym_mut, ACTIONS 339), (anon_sym_out, ACTIONS 339),
    (anon_sym_DASH, ACTIONS 79), (anon_sym_PLUS, ACTIONS 79), (anon_sym_ref, ACTIONS 81),
    (anon_sym_var, ACTIONS 81), (anon_sym_not, ACTIONS 83), (anon_sym_TILDE, ACTIONS 79),
    (anon_sym_lambda, ACTIONS 85), (anon_sym_yield, ACTIONS 87), (sym_ellipsis, ACTIONS 89),
    (anon_sym___mlir_type, ACTIONS 91), (sym_integer, ACTIONS 93), (sym_float, ACTIONS 89),
    (anon_sym_await, ACTIONS 351), (sym_true, ACTIONS 93), (sym_false, ACTIONS 93),
    (sym_none, ACTIONS 93), (sym_comment, ACTIONS 3), (sym_line_continuation, ACTIONS 3),
    (sym__newline, ACTIONS 801), (sym__indent, ACTIONS 803), (sym_string_start, ACTIONS 97)]"

definition parse_table_1042 :: "(nat \<times> nat) list" where "parse_table_1042 = [
    (sym__simple_statements, STATE 5605), (sym_import_statement, STATE 11814),
    (sym_future_import_statement, STATE 11814), (sym_import_from_statement, STATE 11814),
    (sym_print_statement, STATE 11814), (sym_assert_statement, STATE 11814),
    (sym_comptime_assert_statement, STATE 11814), (sym_expression_statement, STATE 11814),
    (sym_tuple_expression, STATE 12425), (sym_named_expression, STATE 7969),
    (sym__named_expression_lhs, STATE 12752), (sym_return_statement, STATE 11814),
    (sym_delete_statement, STATE 11814), (sym_raise_statement, STATE 11814),
    (sym_pass_statement, STATE 11814), (sym_break_statement, STATE 11814),
    (sym_continue_statement, STATE 11814), (sym_global_statement, STATE 11814),
    (sym_nonlocal_statement, STATE 11814), (sym_exec_statement, STATE 11814),
    (sym_type_alias_statement, STATE 11814), (sym_parameterized_alias_statement, STATE 11814),
    (sym_pattern, STATE 8086), (sym_tuple_pattern, STATE 8101), (sym_list_pattern, STATE 8101),
    (sym_list_splat_pattern, STATE 6795), (sym_as_pattern, STATE 7969),
    (sym_expression, STATE 9623), (sym_primary_expression, STATE 7326),
    (sym_comptime_expression, STATE 7017), (sym_transfer_expression, STATE 7017),
    (sym_not_operator, STATE 7969), (sym_boolean_operator, STATE 7969),
    (sym_binary_operator, STATE 7017), (sym_unary_operator, STATE 7017),
    (sym_comparison_operator, STATE 7969), (sym_lambda, STATE 7969),
    (sym_assignment, STATE 12425), (sym_augmented_assignment, STATE 12425),
    (sym_pattern_list, STATE 8578), (sym_yield, STATE 12425), (sym_attribute, STATE 6796),
    (sym_subscript, STATE 6797), (sym_call, STATE 6768), (sym_type, STATE 10130),
    (sym_called_type, STATE 9093), (sym_function_type, STATE 9093), (sym_splat_type, STATE 9093),
    (sym_generic_type, STATE 8287), (sym_union_type, STATE 9093),
    (sym_intersection_type, STATE 9093), (sym__intersection_operand, STATE 12294),
    (sym_constrained_type, STATE 9093), (sym_member_type, STATE 8165),
    (sym_mlir_type, STATE 7017), (sym_list, STATE 7017), (sym_set, STATE 7017),
    (sym_tuple, STATE 7017), (sym_dictionary, STATE 7017), (sym_struct_literal, STATE 7017),
    (sym_list_comprehension, STATE 7017), (sym_dictionary_comprehension, STATE 7017),
    (sym_set_comprehension, STATE 7017), (sym_generator_expression, STATE 7017),
    (sym_parenthesized_expression, STATE 7017), (sym_conditional_expression, STATE 7969),
    (sym_concatenated_string, STATE 7017), (sym_string, STATE 6729), (sym_await, STATE 7017),
    (sym_identifier, ACTIONS 327), (anon_sym_import, ACTIONS 11), (anon_sym_from, ACTIONS 13),
    (anon_sym_LPAREN, ACTIONS 329), (anon_sym_STAR, ACTIONS 331), (anon_sym_print, ACTIONS 333),
    (anon_sym_comptime, ACTIONS 335), (anon_sym_assert, ACTIONS 23),
    (anon_sym___comptime_assert, ACTIONS 25), (anon_sym_return, ACTIONS 27),
    (anon_sym_del, ACTIONS 29), (anon_sym_raise, ACTIONS 31), (anon_sym_pass, ACTIONS 33),
    (anon_sym_break, ACTIONS 35), (anon_sym_continue, ACTIONS 37), (anon_sym_match, ACTIONS 337),
    (anon_sym_async, ACTIONS 339), (anon_sym_def, ACTIONS 341), (anon_sym_LBRACK, ACTIONS 343),
    (anon_sym_LBRACE, ACTIONS 61), (anon_sym_STAR_STAR, ACTIONS 345),
    (anon_sym_global, ACTIONS 63), (anon_sym_nonlocal, ACTIONS 65), (anon_sym_exec, ACTIONS 347),
    (anon_sym_type, ACTIONS 349), (anon_sym_mut, ACTIONS 339), (anon_sym_out, ACTIONS 339),
    (anon_sym_DASH, ACTIONS 79), (anon_sym_PLUS, ACTIONS 79), (anon_sym_ref, ACTIONS 81),
    (anon_sym_var, ACTIONS 81), (anon_sym_not, ACTIONS 83), (anon_sym_TILDE, ACTIONS 79),
    (anon_sym_lambda, ACTIONS 85), (anon_sym_yield, ACTIONS 87), (sym_ellipsis, ACTIONS 89),
    (anon_sym___mlir_type, ACTIONS 91), (sym_integer, ACTIONS 93), (sym_float, ACTIONS 89),
    (anon_sym_await, ACTIONS 351), (sym_true, ACTIONS 93), (sym_false, ACTIONS 93),
    (sym_none, ACTIONS 93), (sym_comment, ACTIONS 3), (sym_line_continuation, ACTIONS 3),
    (sym__newline, ACTIONS 805), (sym__indent, ACTIONS 807), (sym_string_start, ACTIONS 97)]"

definition parse_table_1043 :: "(nat \<times> nat) list" where "parse_table_1043 = [
    (sym__simple_statements, STATE 6441), (sym_import_statement, STATE 11814),
    (sym_future_import_statement, STATE 11814), (sym_import_from_statement, STATE 11814),
    (sym_print_statement, STATE 11814), (sym_assert_statement, STATE 11814),
    (sym_comptime_assert_statement, STATE 11814), (sym_expression_statement, STATE 11814),
    (sym_tuple_expression, STATE 12425), (sym_named_expression, STATE 7969),
    (sym__named_expression_lhs, STATE 12752), (sym_return_statement, STATE 11814),
    (sym_delete_statement, STATE 11814), (sym_raise_statement, STATE 11814),
    (sym_pass_statement, STATE 11814), (sym_break_statement, STATE 11814),
    (sym_continue_statement, STATE 11814), (sym_global_statement, STATE 11814),
    (sym_nonlocal_statement, STATE 11814), (sym_exec_statement, STATE 11814),
    (sym_type_alias_statement, STATE 11814), (sym_parameterized_alias_statement, STATE 11814),
    (sym_pattern, STATE 8086), (sym_tuple_pattern, STATE 8101), (sym_list_pattern, STATE 8101),
    (sym_list_splat_pattern, STATE 6795), (sym_as_pattern, STATE 7969),
    (sym_expression, STATE 9623), (sym_primary_expression, STATE 7326),
    (sym_comptime_expression, STATE 7017), (sym_transfer_expression, STATE 7017),
    (sym_not_operator, STATE 7969), (sym_boolean_operator, STATE 7969),
    (sym_binary_operator, STATE 7017), (sym_unary_operator, STATE 7017),
    (sym_comparison_operator, STATE 7969), (sym_lambda, STATE 7969),
    (sym_assignment, STATE 12425), (sym_augmented_assignment, STATE 12425),
    (sym_pattern_list, STATE 8578), (sym_yield, STATE 12425), (sym_attribute, STATE 6796),
    (sym_subscript, STATE 6797), (sym_call, STATE 6768), (sym_type, STATE 10130),
    (sym_called_type, STATE 9093), (sym_function_type, STATE 9093), (sym_splat_type, STATE 9093),
    (sym_generic_type, STATE 8287), (sym_union_type, STATE 9093),
    (sym_intersection_type, STATE 9093), (sym__intersection_operand, STATE 12294),
    (sym_constrained_type, STATE 9093), (sym_member_type, STATE 8165),
    (sym_mlir_type, STATE 7017), (sym_list, STATE 7017), (sym_set, STATE 7017),
    (sym_tuple, STATE 7017), (sym_dictionary, STATE 7017), (sym_struct_literal, STATE 7017),
    (sym_list_comprehension, STATE 7017), (sym_dictionary_comprehension, STATE 7017),
    (sym_set_comprehension, STATE 7017), (sym_generator_expression, STATE 7017),
    (sym_parenthesized_expression, STATE 7017), (sym_conditional_expression, STATE 7969),
    (sym_concatenated_string, STATE 7017), (sym_string, STATE 6729), (sym_await, STATE 7017),
    (sym_identifier, ACTIONS 327), (anon_sym_import, ACTIONS 11), (anon_sym_from, ACTIONS 13),
    (anon_sym_LPAREN, ACTIONS 329), (anon_sym_STAR, ACTIONS 331), (anon_sym_print, ACTIONS 333),
    (anon_sym_comptime, ACTIONS 335), (anon_sym_assert, ACTIONS 23),
    (anon_sym___comptime_assert, ACTIONS 25), (anon_sym_return, ACTIONS 27),
    (anon_sym_del, ACTIONS 29), (anon_sym_raise, ACTIONS 31), (anon_sym_pass, ACTIONS 33),
    (anon_sym_break, ACTIONS 35), (anon_sym_continue, ACTIONS 37), (anon_sym_match, ACTIONS 337),
    (anon_sym_async, ACTIONS 339), (anon_sym_def, ACTIONS 341), (anon_sym_LBRACK, ACTIONS 343),
    (anon_sym_LBRACE, ACTIONS 61), (anon_sym_STAR_STAR, ACTIONS 345),
    (anon_sym_global, ACTIONS 63), (anon_sym_nonlocal, ACTIONS 65), (anon_sym_exec, ACTIONS 347),
    (anon_sym_type, ACTIONS 349), (anon_sym_mut, ACTIONS 339), (anon_sym_out, ACTIONS 339),
    (anon_sym_DASH, ACTIONS 79), (anon_sym_PLUS, ACTIONS 79), (anon_sym_ref, ACTIONS 81),
    (anon_sym_var, ACTIONS 81), (anon_sym_not, ACTIONS 83), (anon_sym_TILDE, ACTIONS 79),
    (anon_sym_lambda, ACTIONS 85), (anon_sym_yield, ACTIONS 87), (sym_ellipsis, ACTIONS 89),
    (anon_sym___mlir_type, ACTIONS 91), (sym_integer, ACTIONS 93), (sym_float, ACTIONS 89),
    (anon_sym_await, ACTIONS 351), (sym_true, ACTIONS 93), (sym_false, ACTIONS 93),
    (sym_none, ACTIONS 93), (sym_comment, ACTIONS 3), (sym_line_continuation, ACTIONS 3),
    (sym__newline, ACTIONS 809), (sym__indent, ACTIONS 811), (sym_string_start, ACTIONS 97)]"

definition parse_table_1044 :: "(nat \<times> nat) list" where "parse_table_1044 = [
    (sym__simple_statements, STATE 5253), (sym_import_statement, STATE 12239),
    (sym_future_import_statement, STATE 12239), (sym_import_from_statement, STATE 12239),
    (sym_print_statement, STATE 12239), (sym_assert_statement, STATE 12239),
    (sym_comptime_assert_statement, STATE 12239), (sym_expression_statement, STATE 12239),
    (sym_tuple_expression, STATE 12425), (sym_named_expression, STATE 7969),
    (sym__named_expression_lhs, STATE 12752), (sym_return_statement, STATE 12239),
    (sym_delete_statement, STATE 12239), (sym_raise_statement, STATE 12239),
    (sym_pass_statement, STATE 12239), (sym_break_statement, STATE 12239),
    (sym_continue_statement, STATE 12239), (sym_global_statement, STATE 12239),
    (sym_nonlocal_statement, STATE 12239), (sym_exec_statement, STATE 12239),
    (sym_type_alias_statement, STATE 12239), (sym_parameterized_alias_statement, STATE 12239),
    (sym_pattern, STATE 8086), (sym_tuple_pattern, STATE 8101), (sym_list_pattern, STATE 8101),
    (sym_list_splat_pattern, STATE 6795), (sym_as_pattern, STATE 7969),
    (sym_expression, STATE 9623), (sym_primary_expression, STATE 7326),
    (sym_comptime_expression, STATE 7017), (sym_transfer_expression, STATE 7017),
    (sym_not_operator, STATE 7969), (sym_boolean_operator, STATE 7969),
    (sym_binary_operator, STATE 7017), (sym_unary_operator, STATE 7017),
    (sym_comparison_operator, STATE 7969), (sym_lambda, STATE 7969),
    (sym_assignment, STATE 12425), (sym_augmented_assignment, STATE 12425),
    (sym_pattern_list, STATE 8578), (sym_yield, STATE 12425), (sym_attribute, STATE 6796),
    (sym_subscript, STATE 6797), (sym_call, STATE 6768), (sym_type, STATE 10130),
    (sym_called_type, STATE 9093), (sym_function_type, STATE 9093), (sym_splat_type, STATE 9093),
    (sym_generic_type, STATE 8287), (sym_union_type, STATE 9093),
    (sym_intersection_type, STATE 9093), (sym__intersection_operand, STATE 12294),
    (sym_constrained_type, STATE 9093), (sym_member_type, STATE 8165),
    (sym_mlir_type, STATE 7017), (sym_list, STATE 7017), (sym_set, STATE 7017),
    (sym_tuple, STATE 7017), (sym_dictionary, STATE 7017), (sym_struct_literal, STATE 7017),
    (sym_list_comprehension, STATE 7017), (sym_dictionary_comprehension, STATE 7017),
    (sym_set_comprehension, STATE 7017), (sym_generator_expression, STATE 7017),
    (sym_parenthesized_expression, STATE 7017), (sym_conditional_expression, STATE 7969),
    (sym_concatenated_string, STATE 7017), (sym_string, STATE 6729), (sym_await, STATE 7017),
    (sym_identifier, ACTIONS 327), (anon_sym_import, ACTIONS 11), (anon_sym_from, ACTIONS 13),
    (anon_sym_LPAREN, ACTIONS 329), (anon_sym_STAR, ACTIONS 331), (anon_sym_print, ACTIONS 333),
    (anon_sym_comptime, ACTIONS 335), (anon_sym_assert, ACTIONS 23),
    (anon_sym___comptime_assert, ACTIONS 25), (anon_sym_return, ACTIONS 27),
    (anon_sym_del, ACTIONS 29), (anon_sym_raise, ACTIONS 31), (anon_sym_pass, ACTIONS 33),
    (anon_sym_break, ACTIONS 35), (anon_sym_continue, ACTIONS 37), (anon_sym_match, ACTIONS 337),
    (anon_sym_async, ACTIONS 339), (anon_sym_def, ACTIONS 341), (anon_sym_LBRACK, ACTIONS 343),
    (anon_sym_LBRACE, ACTIONS 61), (anon_sym_STAR_STAR, ACTIONS 345),
    (anon_sym_global, ACTIONS 63), (anon_sym_nonlocal, ACTIONS 65), (anon_sym_exec, ACTIONS 347),
    (anon_sym_type, ACTIONS 349), (anon_sym_mut, ACTIONS 339), (anon_sym_out, ACTIONS 339),
    (anon_sym_DASH, ACTIONS 79), (anon_sym_PLUS, ACTIONS 79), (anon_sym_ref, ACTIONS 81),
    (anon_sym_var, ACTIONS 81), (anon_sym_not, ACTIONS 83), (anon_sym_TILDE, ACTIONS 79),
    (anon_sym_lambda, ACTIONS 85), (anon_sym_yield, ACTIONS 87), (sym_ellipsis, ACTIONS 89),
    (anon_sym___mlir_type, ACTIONS 91), (sym_integer, ACTIONS 93), (sym_float, ACTIONS 89),
    (anon_sym_await, ACTIONS 351), (sym_true, ACTIONS 93), (sym_false, ACTIONS 93),
    (sym_none, ACTIONS 93), (sym_comment, ACTIONS 3), (sym_line_continuation, ACTIONS 3),
    (sym__newline, ACTIONS 813), (sym__indent, ACTIONS 815), (sym_string_start, ACTIONS 97)]"

definition parse_table_1045 :: "(nat \<times> nat) list" where "parse_table_1045 = [
    (sym__simple_statements, STATE 5957), (sym_import_statement, STATE 12239),
    (sym_future_import_statement, STATE 12239), (sym_import_from_statement, STATE 12239),
    (sym_print_statement, STATE 12239), (sym_assert_statement, STATE 12239),
    (sym_comptime_assert_statement, STATE 12239), (sym_expression_statement, STATE 12239),
    (sym_tuple_expression, STATE 12425), (sym_named_expression, STATE 7969),
    (sym__named_expression_lhs, STATE 12752), (sym_return_statement, STATE 12239),
    (sym_delete_statement, STATE 12239), (sym_raise_statement, STATE 12239),
    (sym_pass_statement, STATE 12239), (sym_break_statement, STATE 12239),
    (sym_continue_statement, STATE 12239), (sym_global_statement, STATE 12239),
    (sym_nonlocal_statement, STATE 12239), (sym_exec_statement, STATE 12239),
    (sym_type_alias_statement, STATE 12239), (sym_parameterized_alias_statement, STATE 12239),
    (sym_pattern, STATE 8086), (sym_tuple_pattern, STATE 8101), (sym_list_pattern, STATE 8101),
    (sym_list_splat_pattern, STATE 6795), (sym_as_pattern, STATE 7969),
    (sym_expression, STATE 9623), (sym_primary_expression, STATE 7326),
    (sym_comptime_expression, STATE 7017), (sym_transfer_expression, STATE 7017),
    (sym_not_operator, STATE 7969), (sym_boolean_operator, STATE 7969),
    (sym_binary_operator, STATE 7017), (sym_unary_operator, STATE 7017),
    (sym_comparison_operator, STATE 7969), (sym_lambda, STATE 7969),
    (sym_assignment, STATE 12425), (sym_augmented_assignment, STATE 12425),
    (sym_pattern_list, STATE 8578), (sym_yield, STATE 12425), (sym_attribute, STATE 6796),
    (sym_subscript, STATE 6797), (sym_call, STATE 6768), (sym_type, STATE 10130),
    (sym_called_type, STATE 9093), (sym_function_type, STATE 9093), (sym_splat_type, STATE 9093),
    (sym_generic_type, STATE 8287), (sym_union_type, STATE 9093),
    (sym_intersection_type, STATE 9093), (sym__intersection_operand, STATE 12294),
    (sym_constrained_type, STATE 9093), (sym_member_type, STATE 8165),
    (sym_mlir_type, STATE 7017), (sym_list, STATE 7017), (sym_set, STATE 7017),
    (sym_tuple, STATE 7017), (sym_dictionary, STATE 7017), (sym_struct_literal, STATE 7017),
    (sym_list_comprehension, STATE 7017), (sym_dictionary_comprehension, STATE 7017),
    (sym_set_comprehension, STATE 7017), (sym_generator_expression, STATE 7017),
    (sym_parenthesized_expression, STATE 7017), (sym_conditional_expression, STATE 7969),
    (sym_concatenated_string, STATE 7017), (sym_string, STATE 6729), (sym_await, STATE 7017),
    (sym_identifier, ACTIONS 327), (anon_sym_import, ACTIONS 11), (anon_sym_from, ACTIONS 13),
    (anon_sym_LPAREN, ACTIONS 329), (anon_sym_STAR, ACTIONS 331), (anon_sym_print, ACTIONS 333),
    (anon_sym_comptime, ACTIONS 335), (anon_sym_assert, ACTIONS 23),
    (anon_sym___comptime_assert, ACTIONS 25), (anon_sym_return, ACTIONS 27),
    (anon_sym_del, ACTIONS 29), (anon_sym_raise, ACTIONS 31), (anon_sym_pass, ACTIONS 33),
    (anon_sym_break, ACTIONS 35), (anon_sym_continue, ACTIONS 37), (anon_sym_match, ACTIONS 337),
    (anon_sym_async, ACTIONS 339), (anon_sym_def, ACTIONS 341), (anon_sym_LBRACK, ACTIONS 343),
    (anon_sym_LBRACE, ACTIONS 61), (anon_sym_STAR_STAR, ACTIONS 345),
    (anon_sym_global, ACTIONS 63), (anon_sym_nonlocal, ACTIONS 65), (anon_sym_exec, ACTIONS 347),
    (anon_sym_type, ACTIONS 349), (anon_sym_mut, ACTIONS 339), (anon_sym_out, ACTIONS 339),
    (anon_sym_DASH, ACTIONS 79), (anon_sym_PLUS, ACTIONS 79), (anon_sym_ref, ACTIONS 81),
    (anon_sym_var, ACTIONS 81), (anon_sym_not, ACTIONS 83), (anon_sym_TILDE, ACTIONS 79),
    (anon_sym_lambda, ACTIONS 85), (anon_sym_yield, ACTIONS 87), (sym_ellipsis, ACTIONS 89),
    (anon_sym___mlir_type, ACTIONS 91), (sym_integer, ACTIONS 93), (sym_float, ACTIONS 89),
    (anon_sym_await, ACTIONS 351), (sym_true, ACTIONS 93), (sym_false, ACTIONS 93),
    (sym_none, ACTIONS 93), (sym_comment, ACTIONS 3), (sym_line_continuation, ACTIONS 3),
    (sym__newline, ACTIONS 817), (sym__indent, ACTIONS 819), (sym_string_start, ACTIONS 97)]"

definition parse_table_1046 :: "(nat \<times> nat) list" where "parse_table_1046 = [
    (sym__simple_statements, STATE 6446), (sym_import_statement, STATE 11814),
    (sym_future_import_statement, STATE 11814), (sym_import_from_statement, STATE 11814),
    (sym_print_statement, STATE 11814), (sym_assert_statement, STATE 11814),
    (sym_comptime_assert_statement, STATE 11814), (sym_expression_statement, STATE 11814),
    (sym_tuple_expression, STATE 12425), (sym_named_expression, STATE 7969),
    (sym__named_expression_lhs, STATE 12752), (sym_return_statement, STATE 11814),
    (sym_delete_statement, STATE 11814), (sym_raise_statement, STATE 11814),
    (sym_pass_statement, STATE 11814), (sym_break_statement, STATE 11814),
    (sym_continue_statement, STATE 11814), (sym_global_statement, STATE 11814),
    (sym_nonlocal_statement, STATE 11814), (sym_exec_statement, STATE 11814),
    (sym_type_alias_statement, STATE 11814), (sym_parameterized_alias_statement, STATE 11814),
    (sym_pattern, STATE 8086), (sym_tuple_pattern, STATE 8101), (sym_list_pattern, STATE 8101),
    (sym_list_splat_pattern, STATE 6795), (sym_as_pattern, STATE 7969),
    (sym_expression, STATE 9623), (sym_primary_expression, STATE 7326),
    (sym_comptime_expression, STATE 7017), (sym_transfer_expression, STATE 7017),
    (sym_not_operator, STATE 7969), (sym_boolean_operator, STATE 7969),
    (sym_binary_operator, STATE 7017), (sym_unary_operator, STATE 7017),
    (sym_comparison_operator, STATE 7969), (sym_lambda, STATE 7969),
    (sym_assignment, STATE 12425), (sym_augmented_assignment, STATE 12425),
    (sym_pattern_list, STATE 8578), (sym_yield, STATE 12425), (sym_attribute, STATE 6796),
    (sym_subscript, STATE 6797), (sym_call, STATE 6768), (sym_type, STATE 10130),
    (sym_called_type, STATE 9093), (sym_function_type, STATE 9093), (sym_splat_type, STATE 9093),
    (sym_generic_type, STATE 8287), (sym_union_type, STATE 9093),
    (sym_intersection_type, STATE 9093), (sym__intersection_operand, STATE 12294),
    (sym_constrained_type, STATE 9093), (sym_member_type, STATE 8165),
    (sym_mlir_type, STATE 7017), (sym_list, STATE 7017), (sym_set, STATE 7017),
    (sym_tuple, STATE 7017), (sym_dictionary, STATE 7017), (sym_struct_literal, STATE 7017),
    (sym_list_comprehension, STATE 7017), (sym_dictionary_comprehension, STATE 7017),
    (sym_set_comprehension, STATE 7017), (sym_generator_expression, STATE 7017),
    (sym_parenthesized_expression, STATE 7017), (sym_conditional_expression, STATE 7969),
    (sym_concatenated_string, STATE 7017), (sym_string, STATE 6729), (sym_await, STATE 7017),
    (sym_identifier, ACTIONS 327), (anon_sym_import, ACTIONS 11), (anon_sym_from, ACTIONS 13),
    (anon_sym_LPAREN, ACTIONS 329), (anon_sym_STAR, ACTIONS 331), (anon_sym_print, ACTIONS 333),
    (anon_sym_comptime, ACTIONS 335), (anon_sym_assert, ACTIONS 23),
    (anon_sym___comptime_assert, ACTIONS 25), (anon_sym_return, ACTIONS 27),
    (anon_sym_del, ACTIONS 29), (anon_sym_raise, ACTIONS 31), (anon_sym_pass, ACTIONS 33),
    (anon_sym_break, ACTIONS 35), (anon_sym_continue, ACTIONS 37), (anon_sym_match, ACTIONS 337),
    (anon_sym_async, ACTIONS 339), (anon_sym_def, ACTIONS 341), (anon_sym_LBRACK, ACTIONS 343),
    (anon_sym_LBRACE, ACTIONS 61), (anon_sym_STAR_STAR, ACTIONS 345),
    (anon_sym_global, ACTIONS 63), (anon_sym_nonlocal, ACTIONS 65), (anon_sym_exec, ACTIONS 347),
    (anon_sym_type, ACTIONS 349), (anon_sym_mut, ACTIONS 339), (anon_sym_out, ACTIONS 339),
    (anon_sym_DASH, ACTIONS 79), (anon_sym_PLUS, ACTIONS 79), (anon_sym_ref, ACTIONS 81),
    (anon_sym_var, ACTIONS 81), (anon_sym_not, ACTIONS 83), (anon_sym_TILDE, ACTIONS 79),
    (anon_sym_lambda, ACTIONS 85), (anon_sym_yield, ACTIONS 87), (sym_ellipsis, ACTIONS 89),
    (anon_sym___mlir_type, ACTIONS 91), (sym_integer, ACTIONS 93), (sym_float, ACTIONS 89),
    (anon_sym_await, ACTIONS 351), (sym_true, ACTIONS 93), (sym_false, ACTIONS 93),
    (sym_none, ACTIONS 93), (sym_comment, ACTIONS 3), (sym_line_continuation, ACTIONS 3),
    (sym__newline, ACTIONS 821), (sym__indent, ACTIONS 823), (sym_string_start, ACTIONS 97)]"

definition parse_table_1047 :: "(nat \<times> nat) list" where "parse_table_1047 = [
    (sym__simple_statements, STATE 5962), (sym_import_statement, STATE 12239),
    (sym_future_import_statement, STATE 12239), (sym_import_from_statement, STATE 12239),
    (sym_print_statement, STATE 12239), (sym_assert_statement, STATE 12239),
    (sym_comptime_assert_statement, STATE 12239), (sym_expression_statement, STATE 12239),
    (sym_tuple_expression, STATE 12425), (sym_named_expression, STATE 7969),
    (sym__named_expression_lhs, STATE 12752), (sym_return_statement, STATE 12239),
    (sym_delete_statement, STATE 12239), (sym_raise_statement, STATE 12239),
    (sym_pass_statement, STATE 12239), (sym_break_statement, STATE 12239),
    (sym_continue_statement, STATE 12239), (sym_global_statement, STATE 12239),
    (sym_nonlocal_statement, STATE 12239), (sym_exec_statement, STATE 12239),
    (sym_type_alias_statement, STATE 12239), (sym_parameterized_alias_statement, STATE 12239),
    (sym_pattern, STATE 8086), (sym_tuple_pattern, STATE 8101), (sym_list_pattern, STATE 8101),
    (sym_list_splat_pattern, STATE 6795), (sym_as_pattern, STATE 7969),
    (sym_expression, STATE 9623), (sym_primary_expression, STATE 7326),
    (sym_comptime_expression, STATE 7017), (sym_transfer_expression, STATE 7017),
    (sym_not_operator, STATE 7969), (sym_boolean_operator, STATE 7969),
    (sym_binary_operator, STATE 7017), (sym_unary_operator, STATE 7017),
    (sym_comparison_operator, STATE 7969), (sym_lambda, STATE 7969),
    (sym_assignment, STATE 12425), (sym_augmented_assignment, STATE 12425),
    (sym_pattern_list, STATE 8578), (sym_yield, STATE 12425), (sym_attribute, STATE 6796),
    (sym_subscript, STATE 6797), (sym_call, STATE 6768), (sym_type, STATE 10130),
    (sym_called_type, STATE 9093), (sym_function_type, STATE 9093), (sym_splat_type, STATE 9093),
    (sym_generic_type, STATE 8287), (sym_union_type, STATE 9093),
    (sym_intersection_type, STATE 9093), (sym__intersection_operand, STATE 12294),
    (sym_constrained_type, STATE 9093), (sym_member_type, STATE 8165),
    (sym_mlir_type, STATE 7017), (sym_list, STATE 7017), (sym_set, STATE 7017),
    (sym_tuple, STATE 7017), (sym_dictionary, STATE 7017), (sym_struct_literal, STATE 7017),
    (sym_list_comprehension, STATE 7017), (sym_dictionary_comprehension, STATE 7017),
    (sym_set_comprehension, STATE 7017), (sym_generator_expression, STATE 7017),
    (sym_parenthesized_expression, STATE 7017), (sym_conditional_expression, STATE 7969),
    (sym_concatenated_string, STATE 7017), (sym_string, STATE 6729), (sym_await, STATE 7017),
    (sym_identifier, ACTIONS 327), (anon_sym_import, ACTIONS 11), (anon_sym_from, ACTIONS 13),
    (anon_sym_LPAREN, ACTIONS 329), (anon_sym_STAR, ACTIONS 331), (anon_sym_print, ACTIONS 333),
    (anon_sym_comptime, ACTIONS 335), (anon_sym_assert, ACTIONS 23),
    (anon_sym___comptime_assert, ACTIONS 25), (anon_sym_return, ACTIONS 27),
    (anon_sym_del, ACTIONS 29), (anon_sym_raise, ACTIONS 31), (anon_sym_pass, ACTIONS 33),
    (anon_sym_break, ACTIONS 35), (anon_sym_continue, ACTIONS 37), (anon_sym_match, ACTIONS 337),
    (anon_sym_async, ACTIONS 339), (anon_sym_def, ACTIONS 341), (anon_sym_LBRACK, ACTIONS 343),
    (anon_sym_LBRACE, ACTIONS 61), (anon_sym_STAR_STAR, ACTIONS 345),
    (anon_sym_global, ACTIONS 63), (anon_sym_nonlocal, ACTIONS 65), (anon_sym_exec, ACTIONS 347),
    (anon_sym_type, ACTIONS 349), (anon_sym_mut, ACTIONS 339), (anon_sym_out, ACTIONS 339),
    (anon_sym_DASH, ACTIONS 79), (anon_sym_PLUS, ACTIONS 79), (anon_sym_ref, ACTIONS 81),
    (anon_sym_var, ACTIONS 81), (anon_sym_not, ACTIONS 83), (anon_sym_TILDE, ACTIONS 79),
    (anon_sym_lambda, ACTIONS 85), (anon_sym_yield, ACTIONS 87), (sym_ellipsis, ACTIONS 89),
    (anon_sym___mlir_type, ACTIONS 91), (sym_integer, ACTIONS 93), (sym_float, ACTIONS 89),
    (anon_sym_await, ACTIONS 351), (sym_true, ACTIONS 93), (sym_false, ACTIONS 93),
    (sym_none, ACTIONS 93), (sym_comment, ACTIONS 3), (sym_line_continuation, ACTIONS 3),
    (sym__newline, ACTIONS 825), (sym__indent, ACTIONS 827), (sym_string_start, ACTIONS 97)]"

definition parse_table_1048 :: "(nat \<times> nat) list" where "parse_table_1048 = [
    (sym__simple_statements, STATE 5423), (sym_import_statement, STATE 12239),
    (sym_future_import_statement, STATE 12239), (sym_import_from_statement, STATE 12239),
    (sym_print_statement, STATE 12239), (sym_assert_statement, STATE 12239),
    (sym_comptime_assert_statement, STATE 12239), (sym_expression_statement, STATE 12239),
    (sym_tuple_expression, STATE 12425), (sym_named_expression, STATE 7969),
    (sym__named_expression_lhs, STATE 12752), (sym_return_statement, STATE 12239),
    (sym_delete_statement, STATE 12239), (sym_raise_statement, STATE 12239),
    (sym_pass_statement, STATE 12239), (sym_break_statement, STATE 12239),
    (sym_continue_statement, STATE 12239), (sym_global_statement, STATE 12239),
    (sym_nonlocal_statement, STATE 12239), (sym_exec_statement, STATE 12239),
    (sym_type_alias_statement, STATE 12239), (sym_parameterized_alias_statement, STATE 12239),
    (sym_pattern, STATE 8086), (sym_tuple_pattern, STATE 8101), (sym_list_pattern, STATE 8101),
    (sym_list_splat_pattern, STATE 6795), (sym_as_pattern, STATE 7969),
    (sym_expression, STATE 9623), (sym_primary_expression, STATE 7326),
    (sym_comptime_expression, STATE 7017), (sym_transfer_expression, STATE 7017),
    (sym_not_operator, STATE 7969), (sym_boolean_operator, STATE 7969),
    (sym_binary_operator, STATE 7017), (sym_unary_operator, STATE 7017),
    (sym_comparison_operator, STATE 7969), (sym_lambda, STATE 7969),
    (sym_assignment, STATE 12425), (sym_augmented_assignment, STATE 12425),
    (sym_pattern_list, STATE 8578), (sym_yield, STATE 12425), (sym_attribute, STATE 6796),
    (sym_subscript, STATE 6797), (sym_call, STATE 6768), (sym_type, STATE 10130),
    (sym_called_type, STATE 9093), (sym_function_type, STATE 9093), (sym_splat_type, STATE 9093),
    (sym_generic_type, STATE 8287), (sym_union_type, STATE 9093),
    (sym_intersection_type, STATE 9093), (sym__intersection_operand, STATE 12294),
    (sym_constrained_type, STATE 9093), (sym_member_type, STATE 8165),
    (sym_mlir_type, STATE 7017), (sym_list, STATE 7017), (sym_set, STATE 7017),
    (sym_tuple, STATE 7017), (sym_dictionary, STATE 7017), (sym_struct_literal, STATE 7017),
    (sym_list_comprehension, STATE 7017), (sym_dictionary_comprehension, STATE 7017),
    (sym_set_comprehension, STATE 7017), (sym_generator_expression, STATE 7017),
    (sym_parenthesized_expression, STATE 7017), (sym_conditional_expression, STATE 7969),
    (sym_concatenated_string, STATE 7017), (sym_string, STATE 6729), (sym_await, STATE 7017),
    (sym_identifier, ACTIONS 327), (anon_sym_import, ACTIONS 11), (anon_sym_from, ACTIONS 13),
    (anon_sym_LPAREN, ACTIONS 329), (anon_sym_STAR, ACTIONS 331), (anon_sym_print, ACTIONS 333),
    (anon_sym_comptime, ACTIONS 335), (anon_sym_assert, ACTIONS 23),
    (anon_sym___comptime_assert, ACTIONS 25), (anon_sym_return, ACTIONS 27),
    (anon_sym_del, ACTIONS 29), (anon_sym_raise, ACTIONS 31), (anon_sym_pass, ACTIONS 33),
    (anon_sym_break, ACTIONS 35), (anon_sym_continue, ACTIONS 37), (anon_sym_match, ACTIONS 337),
    (anon_sym_async, ACTIONS 339), (anon_sym_def, ACTIONS 341), (anon_sym_LBRACK, ACTIONS 343),
    (anon_sym_LBRACE, ACTIONS 61), (anon_sym_STAR_STAR, ACTIONS 345),
    (anon_sym_global, ACTIONS 63), (anon_sym_nonlocal, ACTIONS 65), (anon_sym_exec, ACTIONS 347),
    (anon_sym_type, ACTIONS 349), (anon_sym_mut, ACTIONS 339), (anon_sym_out, ACTIONS 339),
    (anon_sym_DASH, ACTIONS 79), (anon_sym_PLUS, ACTIONS 79), (anon_sym_ref, ACTIONS 81),
    (anon_sym_var, ACTIONS 81), (anon_sym_not, ACTIONS 83), (anon_sym_TILDE, ACTIONS 79),
    (anon_sym_lambda, ACTIONS 85), (anon_sym_yield, ACTIONS 87), (sym_ellipsis, ACTIONS 89),
    (anon_sym___mlir_type, ACTIONS 91), (sym_integer, ACTIONS 93), (sym_float, ACTIONS 89),
    (anon_sym_await, ACTIONS 351), (sym_true, ACTIONS 93), (sym_false, ACTIONS 93),
    (sym_none, ACTIONS 93), (sym_comment, ACTIONS 3), (sym_line_continuation, ACTIONS 3),
    (sym__newline, ACTIONS 829), (sym__indent, ACTIONS 831), (sym_string_start, ACTIONS 97)]"

definition parse_table_1049 :: "(nat \<times> nat) list" where "parse_table_1049 = [
    (sym__simple_statements, STATE 5981), (sym_import_statement, STATE 12239),
    (sym_future_import_statement, STATE 12239), (sym_import_from_statement, STATE 12239),
    (sym_print_statement, STATE 12239), (sym_assert_statement, STATE 12239),
    (sym_comptime_assert_statement, STATE 12239), (sym_expression_statement, STATE 12239),
    (sym_tuple_expression, STATE 12425), (sym_named_expression, STATE 7969),
    (sym__named_expression_lhs, STATE 12752), (sym_return_statement, STATE 12239),
    (sym_delete_statement, STATE 12239), (sym_raise_statement, STATE 12239),
    (sym_pass_statement, STATE 12239), (sym_break_statement, STATE 12239),
    (sym_continue_statement, STATE 12239), (sym_global_statement, STATE 12239),
    (sym_nonlocal_statement, STATE 12239), (sym_exec_statement, STATE 12239),
    (sym_type_alias_statement, STATE 12239), (sym_parameterized_alias_statement, STATE 12239),
    (sym_pattern, STATE 8086), (sym_tuple_pattern, STATE 8101), (sym_list_pattern, STATE 8101),
    (sym_list_splat_pattern, STATE 6795), (sym_as_pattern, STATE 7969),
    (sym_expression, STATE 9623), (sym_primary_expression, STATE 7326),
    (sym_comptime_expression, STATE 7017), (sym_transfer_expression, STATE 7017),
    (sym_not_operator, STATE 7969), (sym_boolean_operator, STATE 7969),
    (sym_binary_operator, STATE 7017), (sym_unary_operator, STATE 7017),
    (sym_comparison_operator, STATE 7969), (sym_lambda, STATE 7969),
    (sym_assignment, STATE 12425), (sym_augmented_assignment, STATE 12425),
    (sym_pattern_list, STATE 8578), (sym_yield, STATE 12425), (sym_attribute, STATE 6796),
    (sym_subscript, STATE 6797), (sym_call, STATE 6768), (sym_type, STATE 10130),
    (sym_called_type, STATE 9093), (sym_function_type, STATE 9093), (sym_splat_type, STATE 9093),
    (sym_generic_type, STATE 8287), (sym_union_type, STATE 9093),
    (sym_intersection_type, STATE 9093), (sym__intersection_operand, STATE 12294),
    (sym_constrained_type, STATE 9093), (sym_member_type, STATE 8165),
    (sym_mlir_type, STATE 7017), (sym_list, STATE 7017), (sym_set, STATE 7017),
    (sym_tuple, STATE 7017), (sym_dictionary, STATE 7017), (sym_struct_literal, STATE 7017),
    (sym_list_comprehension, STATE 7017), (sym_dictionary_comprehension, STATE 7017),
    (sym_set_comprehension, STATE 7017), (sym_generator_expression, STATE 7017),
    (sym_parenthesized_expression, STATE 7017), (sym_conditional_expression, STATE 7969),
    (sym_concatenated_string, STATE 7017), (sym_string, STATE 6729), (sym_await, STATE 7017),
    (sym_identifier, ACTIONS 327), (anon_sym_import, ACTIONS 11), (anon_sym_from, ACTIONS 13),
    (anon_sym_LPAREN, ACTIONS 329), (anon_sym_STAR, ACTIONS 331), (anon_sym_print, ACTIONS 333),
    (anon_sym_comptime, ACTIONS 335), (anon_sym_assert, ACTIONS 23),
    (anon_sym___comptime_assert, ACTIONS 25), (anon_sym_return, ACTIONS 27),
    (anon_sym_del, ACTIONS 29), (anon_sym_raise, ACTIONS 31), (anon_sym_pass, ACTIONS 33),
    (anon_sym_break, ACTIONS 35), (anon_sym_continue, ACTIONS 37), (anon_sym_match, ACTIONS 337),
    (anon_sym_async, ACTIONS 339), (anon_sym_def, ACTIONS 341), (anon_sym_LBRACK, ACTIONS 343),
    (anon_sym_LBRACE, ACTIONS 61), (anon_sym_STAR_STAR, ACTIONS 345),
    (anon_sym_global, ACTIONS 63), (anon_sym_nonlocal, ACTIONS 65), (anon_sym_exec, ACTIONS 347),
    (anon_sym_type, ACTIONS 349), (anon_sym_mut, ACTIONS 339), (anon_sym_out, ACTIONS 339),
    (anon_sym_DASH, ACTIONS 79), (anon_sym_PLUS, ACTIONS 79), (anon_sym_ref, ACTIONS 81),
    (anon_sym_var, ACTIONS 81), (anon_sym_not, ACTIONS 83), (anon_sym_TILDE, ACTIONS 79),
    (anon_sym_lambda, ACTIONS 85), (anon_sym_yield, ACTIONS 87), (sym_ellipsis, ACTIONS 89),
    (anon_sym___mlir_type, ACTIONS 91), (sym_integer, ACTIONS 93), (sym_float, ACTIONS 89),
    (anon_sym_await, ACTIONS 351), (sym_true, ACTIONS 93), (sym_false, ACTIONS 93),
    (sym_none, ACTIONS 93), (sym_comment, ACTIONS 3), (sym_line_continuation, ACTIONS 3),
    (sym__newline, ACTIONS 833), (sym__indent, ACTIONS 835), (sym_string_start, ACTIONS 97)]"

end
