(* ===== verification/Mojo_Parse_Rows_7.thy ===== *)
theory Mojo_Parse_Rows_7
  imports Mojo_Grammar Mojo_Table_Macros
begin

text \<open>
  The rows of \<open>ts_parse_table\<close> (\<^verbatim>\<open>grammars/tree-sitter-mojo/src/parser.c\<close>) for the parse states from
  1050 to 1199: for a symbol, the group of actions in \<open>ts_parse_actions\<close> for a token and the next state
  for a nonterminal. Definitions only, one for each state.
\<close>

section \<open>Rows\<close>

definition parse_table_1050 :: "(nat \<times> nat) list" where "parse_table_1050 = [
    (sym__simple_statements, STATE 5433), (sym_import_statement, STATE 12239),
    (sym_future_import_statement, STATE 12239), (sym_import_from_statement, STATE 12239),
    (sym_print_statement, STATE 12239), (sym_assert_statement, STATE 12239),
    (sym_comptime_assert_statement, STATE 12239), (sym_expression_statement, STATE 12239),
    (sym_tuple_expression, STATE 12425), (sym_named_expression, STATE 7969),
    (sym__named_expression_lhs, STATE 12752), (sym_return_statement, STATE 12239),
    (sym_delete_statement, STATE 12239), (sym_raise_statement, STATE 12239),
    (sym_pass_statement, STATE 12239), (sym_break_statement, STATE 12239),
    (sym_continue_statement, STATE 12239), (sym_global_statement, STATE 12239),
    (sym_nonlocal_statement, STATE 12239), (sym_exec_statement, STATE 12239),
    (sym_type_alias_statement, STATE 12239), (sym_parameterized_alias_statement, STATE 12239),
    (sym_pattern, STATE 8086), (sym_tuple_pattern, STATE 8101), (sym_list_pattern, STATE 8101),
    (sym_list_splat_pattern, STATE 6795), (sym_as_pattern, STATE 7969),
    (sym_expression, STATE 9623), (sym_primary_expression, STATE 7326),
    (sym_comptime_expression, STATE 7017), (sym_transfer_expression, STATE 7017),
    (sym_not_operator, STATE 7969), (sym_boolean_operator, STATE 7969),
    (sym_binary_operator, STATE 7017), (sym_unary_operator, STATE 7017),
    (sym_comparison_operator, STATE 7969), (sym_lambda, STATE 7969),
    (sym_assignment, STATE 12425), (sym_augmented_assignment, STATE 12425),
    (sym_pattern_list, STATE 8578), (sym_yield, STATE 12425), (sym_attribute, STATE 6796),
    (sym_subscript, STATE 6797), (sym_call, STATE 6768), (sym_type, STATE 10130),
    (sym_called_type, STATE 9093), (sym_function_type, STATE 9093), (sym_splat_type, STATE 9093),
    (sym_generic_type, STATE 8287), (sym_union_type, STATE 9093),
    (sym_intersection_type, STATE 9093), (sym__intersection_operand, STATE 12294),
    (sym_constrained_type, STATE 9093), (sym_member_type, STATE 8165),
    (sym_mlir_type, STATE 7017), (sym_list, STATE 7017), (sym_set, STATE 7017),
    (sym_tuple, STATE 7017), (sym_dictionary, STATE 7017), (sym_struct_literal, STATE 7017),
    (sym_list_comprehension, STATE 7017), (sym_dictionary_comprehension, STATE 7017),
    (sym_set_comprehension, STATE 7017), (sym_generator_expression, STATE 7017),
    (sym_parenthesized_expression, STATE 7017), (sym_conditional_expression, STATE 7969),
    (sym_concatenated_string, STATE 7017), (sym_string, STATE 6729), (sym_await, STATE 7017),
    (sym_identifier, ACTIONS 327), (anon_sym_import, ACTIONS 11), (anon_sym_from, ACTIONS 13),
    (anon_sym_LPAREN, ACTIONS 329), (anon_sym_STAR, ACTIONS 331), (anon_sym_print, ACTIONS 333),
    (anon_sym_comptime, ACTIONS 335), (anon_sym_assert, ACTIONS 23),
    (anon_sym___comptime_assert, ACTIONS 25), (anon_sym_return, ACTIONS 27),
    (anon_sym_del, ACTIONS 29), (anon_sym_raise, ACTIONS 31), (anon_sym_pass, ACTIONS 33),
    (anon_sym_break, ACTIONS 35), (anon_sym_continue, ACTIONS 37), (anon_sym_match, ACTIONS 337),
    (anon_sym_async, ACTIONS 339), (anon_sym_def, ACTIONS 341), (anon_sym_LBRACK, ACTIONS 343),
    (anon_sym_LBRACE, ACTIONS 61), (anon_sym_STAR_STAR, ACTIONS 345),
    (anon_sym_global, ACTIONS 63), (anon_sym_nonlocal, ACTIONS 65), (anon_sym_exec, ACTIONS 347),
    (anon_sym_type, ACTIONS 349), (anon_sym_mut, ACTIONS 339), (anon_sym_out, ACTIONS 339),
    (anon_sym_DASH, ACTIONS 79), (anon_sym_PLUS, ACTIONS 79), (anon_sym_ref, ACTIONS 81),
    (anon_sym_var, ACTIONS 81), (anon_sym_not, ACTIONS 83), (anon_sym_TILDE, ACTIONS 79),
    (anon_sym_lambda, ACTIONS 85), (anon_sym_yield, ACTIONS 87), (sym_ellipsis, ACTIONS 89),
    (anon_sym___mlir_type, ACTIONS 91), (sym_integer, ACTIONS 93), (sym_float, ACTIONS 89),
    (anon_sym_await, ACTIONS 351), (sym_true, ACTIONS 93), (sym_false, ACTIONS 93),
    (sym_none, ACTIONS 93), (sym_comment, ACTIONS 3), (sym_line_continuation, ACTIONS 3),
    (sym__newline, ACTIONS 837), (sym__indent, ACTIONS 839), (sym_string_start, ACTIONS 97)]"

definition parse_table_1051 :: "(nat \<times> nat) list" where "parse_table_1051 = [
    (sym__simple_statements, STATE 4526), (sym_import_statement, STATE 12239),
    (sym_future_import_statement, STATE 12239), (sym_import_from_statement, STATE 12239),
    (sym_print_statement, STATE 12239), (sym_assert_statement, STATE 12239),
    (sym_comptime_assert_statement, STATE 12239), (sym_expression_statement, STATE 12239),
    (sym_tuple_expression, STATE 12425), (sym_named_expression, STATE 7969),
    (sym__named_expression_lhs, STATE 12752), (sym_return_statement, STATE 12239),
    (sym_delete_statement, STATE 12239), (sym_raise_statement, STATE 12239),
    (sym_pass_statement, STATE 12239), (sym_break_statement, STATE 12239),
    (sym_continue_statement, STATE 12239), (sym_global_statement, STATE 12239),
    (sym_nonlocal_statement, STATE 12239), (sym_exec_statement, STATE 12239),
    (sym_type_alias_statement, STATE 12239), (sym_parameterized_alias_statement, STATE 12239),
    (sym_pattern, STATE 8086), (sym_tuple_pattern, STATE 8101), (sym_list_pattern, STATE 8101),
    (sym_list_splat_pattern, STATE 6795), (sym_as_pattern, STATE 7969),
    (sym_expression, STATE 9623), (sym_primary_expression, STATE 7326),
    (sym_comptime_expression, STATE 7017), (sym_transfer_expression, STATE 7017),
    (sym_not_operator, STATE 7969), (sym_boolean_operator, STATE 7969),
    (sym_binary_operator, STATE 7017), (sym_unary_operator, STATE 7017),
    (sym_comparison_operator, STATE 7969), (sym_lambda, STATE 7969),
    (sym_assignment, STATE 12425), (sym_augmented_assignment, STATE 12425),
    (sym_pattern_list, STATE 8578), (sym_yield, STATE 12425), (sym_attribute, STATE 6796),
    (sym_subscript, STATE 6797), (sym_call, STATE 6768), (sym_type, STATE 10130),
    (sym_called_type, STATE 9093), (sym_function_type, STATE 9093), (sym_splat_type, STATE 9093),
    (sym_generic_type, STATE 8287), (sym_union_type, STATE 9093),
    (sym_intersection_type, STATE 9093), (sym__intersection_operand, STATE 12294),
    (sym_constrained_type, STATE 9093), (sym_member_type, STATE 8165),
    (sym_mlir_type, STATE 7017), (sym_list, STATE 7017), (sym_set, STATE 7017),
    (sym_tuple, STATE 7017), (sym_dictionary, STATE 7017), (sym_struct_literal, STATE 7017),
    (sym_list_comprehension, STATE 7017), (sym_dictionary_comprehension, STATE 7017),
    (sym_set_comprehension, STATE 7017), (sym_generator_expression, STATE 7017),
    (sym_parenthesized_expression, STATE 7017), (sym_conditional_expression, STATE 7969),
    (sym_concatenated_string, STATE 7017), (sym_string, STATE 6729), (sym_await, STATE 7017),
    (sym_identifier, ACTIONS 327), (anon_sym_import, ACTIONS 11), (anon_sym_from, ACTIONS 13),
    (anon_sym_LPAREN, ACTIONS 329), (anon_sym_STAR, ACTIONS 331), (anon_sym_print, ACTIONS 333),
    (anon_sym_comptime, ACTIONS 335), (anon_sym_assert, ACTIONS 23),
    (anon_sym___comptime_assert, ACTIONS 25), (anon_sym_return, ACTIONS 27),
    (anon_sym_del, ACTIONS 29), (anon_sym_raise, ACTIONS 31), (anon_sym_pass, ACTIONS 33),
    (anon_sym_break, ACTIONS 35), (anon_sym_continue, ACTIONS 37), (anon_sym_match, ACTIONS 337),
    (anon_sym_async, ACTIONS 339), (anon_sym_def, ACTIONS 341), (anon_sym_LBRACK, ACTIONS 343),
    (anon_sym_LBRACE, ACTIONS 61), (anon_sym_STAR_STAR, ACTIONS 345),
    (anon_sym_global, ACTIONS 63), (anon_sym_nonlocal, ACTIONS 65), (anon_sym_exec, ACTIONS 347),
    (anon_sym_type, ACTIONS 349), (anon_sym_mut, ACTIONS 339), (anon_sym_out, ACTIONS 339),
    (anon_sym_DASH, ACTIONS 79), (anon_sym_PLUS, ACTIONS 79), (anon_sym_ref, ACTIONS 81),
    (anon_sym_var, ACTIONS 81), (anon_sym_not, ACTIONS 83), (anon_sym_TILDE, ACTIONS 79),
    (anon_sym_lambda, ACTIONS 85), (anon_sym_yield, ACTIONS 87), (sym_ellipsis, ACTIONS 89),
    (anon_sym___mlir_type, ACTIONS 91), (sym_integer, ACTIONS 93), (sym_float, ACTIONS 89),
    (anon_sym_await, ACTIONS 351), (sym_true, ACTIONS 93), (sym_false, ACTIONS 93),
    (sym_none, ACTIONS 93), (sym_comment, ACTIONS 3), (sym_line_continuation, ACTIONS 3),
    (sym__newline, ACTIONS 841), (sym__indent, ACTIONS 843), (sym_string_start, ACTIONS 97)]"

definition parse_table_1052 :: "(nat \<times> nat) list" where "parse_table_1052 = [
    (sym__simple_statements, STATE 5995), (sym_import_statement, STATE 12239),
    (sym_future_import_statement, STATE 12239), (sym_import_from_statement, STATE 12239),
    (sym_print_statement, STATE 12239), (sym_assert_statement, STATE 12239),
    (sym_comptime_assert_statement, STATE 12239), (sym_expression_statement, STATE 12239),
    (sym_tuple_expression, STATE 12425), (sym_named_expression, STATE 7969),
    (sym__named_expression_lhs, STATE 12752), (sym_return_statement, STATE 12239),
    (sym_delete_statement, STATE 12239), (sym_raise_statement, STATE 12239),
    (sym_pass_statement, STATE 12239), (sym_break_statement, STATE 12239),
    (sym_continue_statement, STATE 12239), (sym_global_statement, STATE 12239),
    (sym_nonlocal_statement, STATE 12239), (sym_exec_statement, STATE 12239),
    (sym_type_alias_statement, STATE 12239), (sym_parameterized_alias_statement, STATE 12239),
    (sym_pattern, STATE 8086), (sym_tuple_pattern, STATE 8101), (sym_list_pattern, STATE 8101),
    (sym_list_splat_pattern, STATE 6795), (sym_as_pattern, STATE 7969),
    (sym_expression, STATE 9623), (sym_primary_expression, STATE 7326),
    (sym_comptime_expression, STATE 7017), (sym_transfer_expression, STATE 7017),
    (sym_not_operator, STATE 7969), (sym_boolean_operator, STATE 7969),
    (sym_binary_operator, STATE 7017), (sym_unary_operator, STATE 7017),
    (sym_comparison_operator, STATE 7969), (sym_lambda, STATE 7969),
    (sym_assignment, STATE 12425), (sym_augmented_assignment, STATE 12425),
    (sym_pattern_list, STATE 8578), (sym_yield, STATE 12425), (sym_attribute, STATE 6796),
    (sym_subscript, STATE 6797), (sym_call, STATE 6768), (sym_type, STATE 10130),
    (sym_called_type, STATE 9093), (sym_function_type, STATE 9093), (sym_splat_type, STATE 9093),
    (sym_generic_type, STATE 8287), (sym_union_type, STATE 9093),
    (sym_intersection_type, STATE 9093), (sym__intersection_operand, STATE 12294),
    (sym_constrained_type, STATE 9093), (sym_member_type, STATE 8165),
    (sym_mlir_type, STATE 7017), (sym_list, STATE 7017), (sym_set, STATE 7017),
    (sym_tuple, STATE 7017), (sym_dictionary, STATE 7017), (sym_struct_literal, STATE 7017),
    (sym_list_comprehension, STATE 7017), (sym_dictionary_comprehension, STATE 7017),
    (sym_set_comprehension, STATE 7017), (sym_generator_expression, STATE 7017),
    (sym_parenthesized_expression, STATE 7017), (sym_conditional_expression, STATE 7969),
    (sym_concatenated_string, STATE 7017), (sym_string, STATE 6729), (sym_await, STATE 7017),
    (sym_identifier, ACTIONS 327), (anon_sym_import, ACTIONS 11), (anon_sym_from, ACTIONS 13),
    (anon_sym_LPAREN, ACTIONS 329), (anon_sym_STAR, ACTIONS 331), (anon_sym_print, ACTIONS 333),
    (anon_sym_comptime, ACTIONS 335), (anon_sym_assert, ACTIONS 23),
    (anon_sym___comptime_assert, ACTIONS 25), (anon_sym_return, ACTIONS 27),
    (anon_sym_del, ACTIONS 29), (anon_sym_raise, ACTIONS 31), (anon_sym_pass, ACTIONS 33),
    (anon_sym_break, ACTIONS 35), (anon_sym_continue, ACTIONS 37), (anon_sym_match, ACTIONS 337),
    (anon_sym_async, ACTIONS 339), (anon_sym_def, ACTIONS 341), (anon_sym_LBRACK, ACTIONS 343),
    (anon_sym_LBRACE, ACTIONS 61), (anon_sym_STAR_STAR, ACTIONS 345),
    (anon_sym_global, ACTIONS 63), (anon_sym_nonlocal, ACTIONS 65), (anon_sym_exec, ACTIONS 347),
    (anon_sym_type, ACTIONS 349), (anon_sym_mut, ACTIONS 339), (anon_sym_out, ACTIONS 339),
    (anon_sym_DASH, ACTIONS 79), (anon_sym_PLUS, ACTIONS 79), (anon_sym_ref, ACTIONS 81),
    (anon_sym_var, ACTIONS 81), (anon_sym_not, ACTIONS 83), (anon_sym_TILDE, ACTIONS 79),
    (anon_sym_lambda, ACTIONS 85), (anon_sym_yield, ACTIONS 87), (sym_ellipsis, ACTIONS 89),
    (anon_sym___mlir_type, ACTIONS 91), (sym_integer, ACTIONS 93), (sym_float, ACTIONS 89),
    (anon_sym_await, ACTIONS 351), (sym_true, ACTIONS 93), (sym_false, ACTIONS 93),
    (sym_none, ACTIONS 93), (sym_comment, ACTIONS 3), (sym_line_continuation, ACTIONS 3),
    (sym__newline, ACTIONS 845), (sym__indent, ACTIONS 847), (sym_string_start, ACTIONS 97)]"

definition parse_table_1053 :: "(nat \<times> nat) list" where "parse_table_1053 = [
    (sym__simple_statements, STATE 4880), (sym_import_statement, STATE 12239),
    (sym_future_import_statement, STATE 12239), (sym_import_from_statement, STATE 12239),
    (sym_print_statement, STATE 12239), (sym_assert_statement, STATE 12239),
    (sym_comptime_assert_statement, STATE 12239), (sym_expression_statement, STATE 12239),
    (sym_tuple_expression, STATE 12425), (sym_named_expression, STATE 7969),
    (sym__named_expression_lhs, STATE 12752), (sym_return_statement, STATE 12239),
    (sym_delete_statement, STATE 12239), (sym_raise_statement, STATE 12239),
    (sym_pass_statement, STATE 12239), (sym_break_statement, STATE 12239),
    (sym_continue_statement, STATE 12239), (sym_global_statement, STATE 12239),
    (sym_nonlocal_statement, STATE 12239), (sym_exec_statement, STATE 12239),
    (sym_type_alias_statement, STATE 12239), (sym_parameterized_alias_statement, STATE 12239),
    (sym_pattern, STATE 8086), (sym_tuple_pattern, STATE 8101), (sym_list_pattern, STATE 8101),
    (sym_list_splat_pattern, STATE 6795), (sym_as_pattern, STATE 7969),
    (sym_expression, STATE 9623), (sym_primary_expression, STATE 7326),
    (sym_comptime_expression, STATE 7017), (sym_transfer_expression, STATE 7017),
    (sym_not_operator, STATE 7969), (sym_boolean_operator, STATE 7969),
    (sym_binary_operator, STATE 7017), (sym_unary_operator, STATE 7017),
    (sym_comparison_operator, STATE 7969), (sym_lambda, STATE 7969),
    (sym_assignment, STATE 12425), (sym_augmented_assignment, STATE 12425),
    (sym_pattern_list, STATE 8578), (sym_yield, STATE 12425), (sym_attribute, STATE 6796),
    (sym_subscript, STATE 6797), (sym_call, STATE 6768), (sym_type, STATE 10130),
    (sym_called_type, STATE 9093), (sym_function_type, STATE 9093), (sym_splat_type, STATE 9093),
    (sym_generic_type, STATE 8287), (sym_union_type, STATE 9093),
    (sym_intersection_type, STATE 9093), (sym__intersection_operand, STATE 12294),
    (sym_constrained_type, STATE 9093), (sym_member_type, STATE 8165),
    (sym_mlir_type, STATE 7017), (sym_list, STATE 7017), (sym_set, STATE 7017),
    (sym_tuple, STATE 7017), (sym_dictionary, STATE 7017), (sym_struct_literal, STATE 7017),
    (sym_list_comprehension, STATE 7017), (sym_dictionary_comprehension, STATE 7017),
    (sym_set_comprehension, STATE 7017), (sym_generator_expression, STATE 7017),
    (sym_parenthesized_expression, STATE 7017), (sym_conditional_expression, STATE 7969),
    (sym_concatenated_string, STATE 7017), (sym_string, STATE 6729), (sym_await, STATE 7017),
    (sym_identifier, ACTIONS 327), (anon_sym_import, ACTIONS 11), (anon_sym_from, ACTIONS 13),
    (anon_sym_LPAREN, ACTIONS 329), (anon_sym_STAR, ACTIONS 331), (anon_sym_print, ACTIONS 333),
    (anon_sym_comptime, ACTIONS 335), (anon_sym_assert, ACTIONS 23),
    (anon_sym___comptime_assert, ACTIONS 25), (anon_sym_return, ACTIONS 27),
    (anon_sym_del, ACTIONS 29), (anon_sym_raise, ACTIONS 31), (anon_sym_pass, ACTIONS 33),
    (anon_sym_break, ACTIONS 35), (anon_sym_continue, ACTIONS 37), (anon_sym_match, ACTIONS 337),
    (anon_sym_async, ACTIONS 339), (anon_sym_def, ACTIONS 341), (anon_sym_LBRACK, ACTIONS 343),
    (anon_sym_LBRACE, ACTIONS 61), (anon_sym_STAR_STAR, ACTIONS 345),
    (anon_sym_global, ACTIONS 63), (anon_sym_nonlocal, ACTIONS 65), (anon_sym_exec, ACTIONS 347),
    (anon_sym_type, ACTIONS 349), (anon_sym_mut, ACTIONS 339), (anon_sym_out, ACTIONS 339),
    (anon_sym_DASH, ACTIONS 79), (anon_sym_PLUS, ACTIONS 79), (anon_sym_ref, ACTIONS 81),
    (anon_sym_var, ACTIONS 81), (anon_sym_not, ACTIONS 83), (anon_sym_TILDE, ACTIONS 79),
    (anon_sym_lambda, ACTIONS 85), (anon_sym_yield, ACTIONS 87), (sym_ellipsis, ACTIONS 89),
    (anon_sym___mlir_type, ACTIONS 91), (sym_integer, ACTIONS 93), (sym_float, ACTIONS 89),
    (anon_sym_await, ACTIONS 351), (sym_true, ACTIONS 93), (sym_false, ACTIONS 93),
    (sym_none, ACTIONS 93), (sym_comment, ACTIONS 3), (sym_line_continuation, ACTIONS 3),
    (sym__newline, ACTIONS 849), (sym__indent, ACTIONS 851), (sym_string_start, ACTIONS 97)]"

definition parse_table_1054 :: "(nat \<times> nat) list" where "parse_table_1054 = [
    (sym__simple_statements, STATE 4535), (sym_import_statement, STATE 12239),
    (sym_future_import_statement, STATE 12239), (sym_import_from_statement, STATE 12239),
    (sym_print_statement, STATE 12239), (sym_assert_statement, STATE 12239),
    (sym_comptime_assert_statement, STATE 12239), (sym_expression_statement, STATE 12239),
    (sym_tuple_expression, STATE 12425), (sym_named_expression, STATE 7969),
    (sym__named_expression_lhs, STATE 12752), (sym_return_statement, STATE 12239),
    (sym_delete_statement, STATE 12239), (sym_raise_statement, STATE 12239),
    (sym_pass_statement, STATE 12239), (sym_break_statement, STATE 12239),
    (sym_continue_statement, STATE 12239), (sym_global_statement, STATE 12239),
    (sym_nonlocal_statement, STATE 12239), (sym_exec_statement, STATE 12239),
    (sym_type_alias_statement, STATE 12239), (sym_parameterized_alias_statement, STATE 12239),
    (sym_pattern, STATE 8086), (sym_tuple_pattern, STATE 8101), (sym_list_pattern, STATE 8101),
    (sym_list_splat_pattern, STATE 6795), (sym_as_pattern, STATE 7969),
    (sym_expression, STATE 9623), (sym_primary_expression, STATE 7326),
    (sym_comptime_expression, STATE 7017), (sym_transfer_expression, STATE 7017),
    (sym_not_operator, STATE 7969), (sym_boolean_operator, STATE 7969),
    (sym_binary_operator, STATE 7017), (sym_unary_operator, STATE 7017),
    (sym_comparison_operator, STATE 7969), (sym_lambda, STATE 7969),
    (sym_assignment, STATE 12425), (sym_augmented_assignment, STATE 12425),
    (sym_pattern_list, STATE 8578), (sym_yield, STATE 12425), (sym_attribute, STATE 6796),
    (sym_subscript, STATE 6797), (sym_call, STATE 6768), (sym_type, STATE 10130),
    (sym_called_type, STATE 9093), (sym_function_type, STATE 9093), (sym_splat_type, STATE 9093),
    (sym_generic_type, STATE 8287), (sym_union_type, STATE 9093),
    (sym_intersection_type, STATE 9093), (sym__intersection_operand, STATE 12294),
    (sym_constrained_type, STATE 9093), (sym_member_type, STATE 8165),
    (sym_mlir_type, STATE 7017), (sym_list, STATE 7017), (sym_set, STATE 7017),
    (sym_tuple, STATE 7017), (sym_dictionary, STATE 7017), (sym_struct_literal, STATE 7017),
    (sym_list_comprehension, STATE 7017), (sym_dictionary_comprehension, STATE 7017),
    (sym_set_comprehension, STATE 7017), (sym_generator_expression, STATE 7017),
    (sym_parenthesized_expression, STATE 7017), (sym_conditional_expression, STATE 7969),
    (sym_concatenated_string, STATE 7017), (sym_string, STATE 6729), (sym_await, STATE 7017),
    (sym_identifier, ACTIONS 327), (anon_sym_import, ACTIONS 11), (anon_sym_from, ACTIONS 13),
    (anon_sym_LPAREN, ACTIONS 329), (anon_sym_STAR, ACTIONS 331), (anon_sym_print, ACTIONS 333),
    (anon_sym_comptime, ACTIONS 335), (anon_sym_assert, ACTIONS 23),
    (anon_sym___comptime_assert, ACTIONS 25), (anon_sym_return, ACTIONS 27),
    (anon_sym_del, ACTIONS 29), (anon_sym_raise, ACTIONS 31), (anon_sym_pass, ACTIONS 33),
    (anon_sym_break, ACTIONS 35), (anon_sym_continue, ACTIONS 37), (anon_sym_match, ACTIONS 337),
    (anon_sym_async, ACTIONS 339), (anon_sym_def, ACTIONS 341), (anon_sym_LBRACK, ACTIONS 343),
    (anon_sym_LBRACE, ACTIONS 61), (anon_sym_STAR_STAR, ACTIONS 345),
    (anon_sym_global, ACTIONS 63), (anon_sym_nonlocal, ACTIONS 65), (anon_sym_exec, ACTIONS 347),
    (anon_sym_type, ACTIONS 349), (anon_sym_mut, ACTIONS 339), (anon_sym_out, ACTIONS 339),
    (anon_sym_DASH, ACTIONS 79), (anon_sym_PLUS, ACTIONS 79), (anon_sym_ref, ACTIONS 81),
    (anon_sym_var, ACTIONS 81), (anon_sym_not, ACTIONS 83), (anon_sym_TILDE, ACTIONS 79),
    (anon_sym_lambda, ACTIONS 85), (anon_sym_yield, ACTIONS 87), (sym_ellipsis, ACTIONS 89),
    (anon_sym___mlir_type, ACTIONS 91), (sym_integer, ACTIONS 93), (sym_float, ACTIONS 89),
    (anon_sym_await, ACTIONS 351), (sym_true, ACTIONS 93), (sym_false, ACTIONS 93),
    (sym_none, ACTIONS 93), (sym_comment, ACTIONS 3), (sym_line_continuation, ACTIONS 3),
    (sym__newline, ACTIONS 853), (sym__indent, ACTIONS 855), (sym_string_start, ACTIONS 97)]"

definition parse_table_1055 :: "(nat \<times> nat) list" where "parse_table_1055 = [
    (sym__simple_statements, STATE 5362), (sym_import_statement, STATE 12239),
    (sym_future_import_statement, STATE 12239), (sym_import_from_statement, STATE 12239),
    (sym_print_statement, STATE 12239), (sym_assert_statement, STATE 12239),
    (sym_comptime_assert_statement, STATE 12239), (sym_expression_statement, STATE 12239),
    (sym_tuple_expression, STATE 12425), (sym_named_expression, STATE 7969),
    (sym__named_expression_lhs, STATE 12752), (sym_return_statement, STATE 12239),
    (sym_delete_statement, STATE 12239), (sym_raise_statement, STATE 12239),
    (sym_pass_statement, STATE 12239), (sym_break_statement, STATE 12239),
    (sym_continue_statement, STATE 12239), (sym_global_statement, STATE 12239),
    (sym_nonlocal_statement, STATE 12239), (sym_exec_statement, STATE 12239),
    (sym_type_alias_statement, STATE 12239), (sym_parameterized_alias_statement, STATE 12239),
    (sym_pattern, STATE 8086), (sym_tuple_pattern, STATE 8101), (sym_list_pattern, STATE 8101),
    (sym_list_splat_pattern, STATE 6795), (sym_as_pattern, STATE 7969),
    (sym_expression, STATE 9623), (sym_primary_expression, STATE 7326),
    (sym_comptime_expression, STATE 7017), (sym_transfer_expression, STATE 7017),
    (sym_not_operator, STATE 7969), (sym_boolean_operator, STATE 7969),
    (sym_binary_operator, STATE 7017), (sym_unary_operator, STATE 7017),
    (sym_comparison_operator, STATE 7969), (sym_lambda, STATE 7969),
    (sym_assignment, STATE 12425), (sym_augmented_assignment, STATE 12425),
    (sym_pattern_list, STATE 8578), (sym_yield, STATE 12425), (sym_attribute, STATE 6796),
    (sym_subscript, STATE 6797), (sym_call, STATE 6768), (sym_type, STATE 10130),
    (sym_called_type, STATE 9093), (sym_function_type, STATE 9093), (sym_splat_type, STATE 9093),
    (sym_generic_type, STATE 8287), (sym_union_type, STATE 9093),
    (sym_intersection_type, STATE 9093), (sym__intersection_operand, STATE 12294),
    (sym_constrained_type, STATE 9093), (sym_member_type, STATE 8165),
    (sym_mlir_type, STATE 7017), (sym_list, STATE 7017), (sym_set, STATE 7017),
    (sym_tuple, STATE 7017), (sym_dictionary, STATE 7017), (sym_struct_literal, STATE 7017),
    (sym_list_comprehension, STATE 7017), (sym_dictionary_comprehension, STATE 7017),
    (sym_set_comprehension, STATE 7017), (sym_generator_expression, STATE 7017),
    (sym_parenthesized_expression, STATE 7017), (sym_conditional_expression, STATE 7969),
    (sym_concatenated_string, STATE 7017), (sym_string, STATE 6729), (sym_await, STATE 7017),
    (sym_identifier, ACTIONS 327), (anon_sym_import, ACTIONS 11), (anon_sym_from, ACTIONS 13),
    (anon_sym_LPAREN, ACTIONS 329), (anon_sym_STAR, ACTIONS 331), (anon_sym_print, ACTIONS 333),
    (anon_sym_comptime, ACTIONS 335), (anon_sym_assert, ACTIONS 23),
    (anon_sym___comptime_assert, ACTIONS 25), (anon_sym_return, ACTIONS 27),
    (anon_sym_del, ACTIONS 29), (anon_sym_raise, ACTIONS 31), (anon_sym_pass, ACTIONS 33),
    (anon_sym_break, ACTIONS 35), (anon_sym_continue, ACTIONS 37), (anon_sym_match, ACTIONS 337),
    (anon_sym_async, ACTIONS 339), (anon_sym_def, ACTIONS 341), (anon_sym_LBRACK, ACTIONS 343),
    (anon_sym_LBRACE, ACTIONS 61), (anon_sym_STAR_STAR, ACTIONS 345),
    (anon_sym_global, ACTIONS 63), (anon_sym_nonlocal, ACTIONS 65), (anon_sym_exec, ACTIONS 347),
    (anon_sym_type, ACTIONS 349), (anon_sym_mut, ACTIONS 339), (anon_sym_out, ACTIONS 339),
    (anon_sym_DASH, ACTIONS 79), (anon_sym_PLUS, ACTIONS 79), (anon_sym_ref, ACTIONS 81),
    (anon_sym_var, ACTIONS 81), (anon_sym_not, ACTIONS 83), (anon_sym_TILDE, ACTIONS 79),
    (anon_sym_lambda, ACTIONS 85), (anon_sym_yield, ACTIONS 87), (sym_ellipsis, ACTIONS 89),
    (anon_sym___mlir_type, ACTIONS 91), (sym_integer, ACTIONS 93), (sym_float, ACTIONS 89),
    (anon_sym_await, ACTIONS 351), (sym_true, ACTIONS 93), (sym_false, ACTIONS 93),
    (sym_none, ACTIONS 93), (sym_comment, ACTIONS 3), (sym_line_continuation, ACTIONS 3),
    (sym__newline, ACTIONS 857), (sym__indent, ACTIONS 859), (sym_string_start, ACTIONS 97)]"

definition parse_table_1056 :: "(nat \<times> nat) list" where "parse_table_1056 = [
    (sym__simple_statements, STATE 6476), (sym_import_statement, STATE 11814),
    (sym_future_import_statement, STATE 11814), (sym_import_from_statement, STATE 11814),
    (sym_print_statement, STATE 11814), (sym_assert_statement, STATE 11814),
    (sym_comptime_assert_statement, STATE 11814), (sym_expression_statement, STATE 11814),
    (sym_tuple_expression, STATE 12425), (sym_named_expression, STATE 7969),
    (sym__named_expression_lhs, STATE 12752), (sym_return_statement, STATE 11814),
    (sym_delete_statement, STATE 11814), (sym_raise_statement, STATE 11814),
    (sym_pass_statement, STATE 11814), (sym_break_statement, STATE 11814),
    (sym_continue_statement, STATE 11814), (sym_global_statement, STATE 11814),
    (sym_nonlocal_statement, STATE 11814), (sym_exec_statement, STATE 11814),
    (sym_type_alias_statement, STATE 11814), (sym_parameterized_alias_statement, STATE 11814),
    (sym_pattern, STATE 8086), (sym_tuple_pattern, STATE 8101), (sym_list_pattern, STATE 8101),
    (sym_list_splat_pattern, STATE 6795), (sym_as_pattern, STATE 7969),
    (sym_expression, STATE 9623), (sym_primary_expression, STATE 7326),
    (sym_comptime_expression, STATE 7017), (sym_transfer_expression, STATE 7017),
    (sym_not_operator, STATE 7969), (sym_boolean_operator, STATE 7969),
    (sym_binary_operator, STATE 7017), (sym_unary_operator, STATE 7017),
    (sym_comparison_operator, STATE 7969), (sym_lambda, STATE 7969),
    (sym_assignment, STATE 12425), (sym_augmented_assignment, STATE 12425),
    (sym_pattern_list, STATE 8578), (sym_yield, STATE 12425), (sym_attribute, STATE 6796),
    (sym_subscript, STATE 6797), (sym_call, STATE 6768), (sym_type, STATE 10130),
    (sym_called_type, STATE 9093), (sym_function_type, STATE 9093), (sym_splat_type, STATE 9093),
    (sym_generic_type, STATE 8287), (sym_union_type, STATE 9093),
    (sym_intersection_type, STATE 9093), (sym__intersection_operand, STATE 12294),
    (sym_constrained_type, STATE 9093), (sym_member_type, STATE 8165),
    (sym_mlir_type, STATE 7017), (sym_list, STATE 7017), (sym_set, STATE 7017),
    (sym_tuple, STATE 7017), (sym_dictionary, STATE 7017), (sym_struct_literal, STATE 7017),
    (sym_list_comprehension, STATE 7017), (sym_dictionary_comprehension, STATE 7017),
    (sym_set_comprehension, STATE 7017), (sym_generator_expression, STATE 7017),
    (sym_parenthesized_expression, STATE 7017), (sym_conditional_expression, STATE 7969),
    (sym_concatenated_string, STATE 7017), (sym_string, STATE 6729), (sym_await, STATE 7017),
    (sym_identifier, ACTIONS 327), (anon_sym_import, ACTIONS 11), (anon_sym_from, ACTIONS 13),
    (anon_sym_LPAREN, ACTIONS 329), (anon_sym_STAR, ACTIONS 331), (anon_sym_print, ACTIONS 333),
    (anon_sym_comptime, ACTIONS 335), (anon_sym_assert, ACTIONS 23),
    (anon_sym___comptime_assert, ACTIONS 25), (anon_sym_return, ACTIONS 27),
    (anon_sym_del, ACTIONS 29), (anon_sym_raise, ACTIONS 31), (anon_sym_pass, ACTIONS 33),
    (anon_sym_break, ACTIONS 35), (anon_sym_continue, ACTIONS 37), (anon_sym_match, ACTIONS 337),
    (anon_sym_async, ACTIONS 339), (anon_sym_def, ACTIONS 341), (anon_sym_LBRACK, ACTIONS 343),
    (anon_sym_LBRACE, ACTIONS 61), (anon_sym_STAR_STAR, ACTIONS 345),
    (anon_sym_global, ACTIONS 63), (anon_sym_nonlocal, ACTIONS 65), (anon_sym_exec, ACTIONS 347),
    (anon_sym_type, ACTIONS 349), (anon_sym_mut, ACTIONS 339), (anon_sym_out, ACTIONS 339),
    (anon_sym_DASH, ACTIONS 79), (anon_sym_PLUS, ACTIONS 79), (anon_sym_ref, ACTIONS 81),
    (anon_sym_var, ACTIONS 81), (anon_sym_not, ACTIONS 83), (anon_sym_TILDE, ACTIONS 79),
    (anon_sym_lambda, ACTIONS 85), (anon_sym_yield, ACTIONS 87), (sym_ellipsis, ACTIONS 89),
    (anon_sym___mlir_type, ACTIONS 91), (sym_integer, ACTIONS 93), (sym_float, ACTIONS 89),
    (anon_sym_await, ACTIONS 351), (sym_true, ACTIONS 93), (sym_false, ACTIONS 93),
    (sym_none, ACTIONS 93), (sym_comment, ACTIONS 3), (sym_line_continuation, ACTIONS 3),
    (sym__newline, ACTIONS 861), (sym__indent, ACTIONS 863), (sym_string_start, ACTIONS 97)]"

definition parse_table_1057 :: "(nat \<times> nat) list" where "parse_table_1057 = [
    (sym__simple_statements, STATE 5647), (sym_import_statement, STATE 11814),
    (sym_future_import_statement, STATE 11814), (sym_import_from_statement, STATE 11814),
    (sym_print_statement, STATE 11814), (sym_assert_statement, STATE 11814),
    (sym_comptime_assert_statement, STATE 11814), (sym_expression_statement, STATE 11814),
    (sym_tuple_expression, STATE 12425), (sym_named_expression, STATE 7969),
    (sym__named_expression_lhs, STATE 12752), (sym_return_statement, STATE 11814),
    (sym_delete_statement, STATE 11814), (sym_raise_statement, STATE 11814),
    (sym_pass_statement, STATE 11814), (sym_break_statement, STATE 11814),
    (sym_continue_statement, STATE 11814), (sym_global_statement, STATE 11814),
    (sym_nonlocal_statement, STATE 11814), (sym_exec_statement, STATE 11814),
    (sym_type_alias_statement, STATE 11814), (sym_parameterized_alias_statement, STATE 11814),
    (sym_pattern, STATE 8086), (sym_tuple_pattern, STATE 8101), (sym_list_pattern, STATE 8101),
    (sym_list_splat_pattern, STATE 6795), (sym_as_pattern, STATE 7969),
    (sym_expression, STATE 9623), (sym_primary_expression, STATE 7326),
    (sym_comptime_expression, STATE 7017), (sym_transfer_expression, STATE 7017),
    (sym_not_operator, STATE 7969), (sym_boolean_operator, STATE 7969),
    (sym_binary_operator, STATE 7017), (sym_unary_operator, STATE 7017),
    (sym_comparison_operator, STATE 7969), (sym_lambda, STATE 7969),
    (sym_assignment, STATE 12425), (sym_augmented_assignment, STATE 12425),
    (sym_pattern_list, STATE 8578), (sym_yield, STATE 12425), (sym_attribute, STATE 6796),
    (sym_subscript, STATE 6797), (sym_call, STATE 6768), (sym_type, STATE 10130),
    (sym_called_type, STATE 9093), (sym_function_type, STATE 9093), (sym_splat_type, STATE 9093),
    (sym_generic_type, STATE 8287), (sym_union_type, STATE 9093),
    (sym_intersection_type, STATE 9093), (sym__intersection_operand, STATE 12294),
    (sym_constrained_type, STATE 9093), (sym_member_type, STATE 8165),
    (sym_mlir_type, STATE 7017), (sym_list, STATE 7017), (sym_set, STATE 7017),
    (sym_tuple, STATE 7017), (sym_dictionary, STATE 7017), (sym_struct_literal, STATE 7017),
    (sym_list_comprehension, STATE 7017), (sym_dictionary_comprehension, STATE 7017),
    (sym_set_comprehension, STATE 7017), (sym_generator_expression, STATE 7017),
    (sym_parenthesized_expression, STATE 7017), (sym_conditional_expression, STATE 7969),
    (sym_concatenated_string, STATE 7017), (sym_string, STATE 6729), (sym_await, STATE 7017),
    (sym_identifier, ACTIONS 327), (anon_sym_import, ACTIONS 11), (anon_sym_from, ACTIONS 13),
    (anon_sym_LPAREN, ACTIONS 329), (anon_sym_STAR, ACTIONS 331), (anon_sym_print, ACTIONS 333),
    (anon_sym_comptime, ACTIONS 335), (anon_sym_assert, ACTIONS 23),
    (anon_sym___comptime_assert, ACTIONS 25), (anon_sym_return, ACTIONS 27),
    (anon_sym_del, ACTIONS 29), (anon_sym_raise, ACTIONS 31), (anon_sym_pass, ACTIONS 33),
    (anon_sym_break, ACTIONS 35), (anon_sym_continue, ACTIONS 37), (anon_sym_match, ACTIONS 337),
    (anon_sym_async, ACTIONS 339), (anon_sym_def, ACTIONS 341), (anon_sym_LBRACK, ACTIONS 343),
    (anon_sym_LBRACE, ACTIONS 61), (anon_sym_STAR_STAR, ACTIONS 345),
    (anon_sym_global, ACTIONS 63), (anon_sym_nonlocal, ACTIONS 65), (anon_sym_exec, ACTIONS 347),
    (anon_sym_type, ACTIONS 349), (anon_sym_mut, ACTIONS 339), (anon_sym_out, ACTIONS 339),
    (anon_sym_DASH, ACTIONS 79), (anon_sym_PLUS, ACTIONS 79), (anon_sym_ref, ACTIONS 81),
    (anon_sym_var, ACTIONS 81), (anon_sym_not, ACTIONS 83), (anon_sym_TILDE, ACTIONS 79),
    (anon_sym_lambda, ACTIONS 85), (anon_sym_yield, ACTIONS 87), (sym_ellipsis, ACTIONS 89),
    (anon_sym___mlir_type, ACTIONS 91), (sym_integer, ACTIONS 93), (sym_float, ACTIONS 89),
    (anon_sym_await, ACTIONS 351), (sym_true, ACTIONS 93), (sym_false, ACTIONS 93),
    (sym_none, ACTIONS 93), (sym_comment, ACTIONS 3), (sym_line_continuation, ACTIONS 3),
    (sym__newline, ACTIONS 865), (sym__indent, ACTIONS 867), (sym_string_start, ACTIONS 97)]"

definition parse_table_1058 :: "(nat \<times> nat) list" where "parse_table_1058 = [
    (sym__simple_statements, STATE 4965), (sym_import_statement, STATE 12239),
    (sym_future_import_statement, STATE 12239), (sym_import_from_statement, STATE 12239),
    (sym_print_statement, STATE 12239), (sym_assert_statement, STATE 12239),
    (sym_comptime_assert_statement, STATE 12239), (sym_expression_statement, STATE 12239),
    (sym_tuple_expression, STATE 12425), (sym_named_expression, STATE 7969),
    (sym__named_expression_lhs, STATE 12752), (sym_return_statement, STATE 12239),
    (sym_delete_statement, STATE 12239), (sym_raise_statement, STATE 12239),
    (sym_pass_statement, STATE 12239), (sym_break_statement, STATE 12239),
    (sym_continue_statement, STATE 12239), (sym_global_statement, STATE 12239),
    (sym_nonlocal_statement, STATE 12239), (sym_exec_statement, STATE 12239),
    (sym_type_alias_statement, STATE 12239), (sym_parameterized_alias_statement, STATE 12239),
    (sym_pattern, STATE 8086), (sym_tuple_pattern, STATE 8101), (sym_list_pattern, STATE 8101),
    (sym_list_splat_pattern, STATE 6795), (sym_as_pattern, STATE 7969),
    (sym_expression, STATE 9623), (sym_primary_expression, STATE 7326),
    (sym_comptime_expression, STATE 7017), (sym_transfer_expression, STATE 7017),
    (sym_not_operator, STATE 7969), (sym_boolean_operator, STATE 7969),
    (sym_binary_operator, STATE 7017), (sym_unary_operator, STATE 7017),
    (sym_comparison_operator, STATE 7969), (sym_lambda, STATE 7969),
    (sym_assignment, STATE 12425), (sym_augmented_assignment, STATE 12425),
    (sym_pattern_list, STATE 8578), (sym_yield, STATE 12425), (sym_attribute, STATE 6796),
    (sym_subscript, STATE 6797), (sym_call, STATE 6768), (sym_type, STATE 10130),
    (sym_called_type, STATE 9093), (sym_function_type, STATE 9093), (sym_splat_type, STATE 9093),
    (sym_generic_type, STATE 8287), (sym_union_type, STATE 9093),
    (sym_intersection_type, STATE 9093), (sym__intersection_operand, STATE 12294),
    (sym_constrained_type, STATE 9093), (sym_member_type, STATE 8165),
    (sym_mlir_type, STATE 7017), (sym_list, STATE 7017), (sym_set, STATE 7017),
    (sym_tuple, STATE 7017), (sym_dictionary, STATE 7017), (sym_struct_literal, STATE 7017),
    (sym_list_comprehension, STATE 7017), (sym_dictionary_comprehension, STATE 7017),
    (sym_set_comprehension, STATE 7017), (sym_generator_expression, STATE 7017),
    (sym_parenthesized_expression, STATE 7017), (sym_conditional_expression, STATE 7969),
    (sym_concatenated_string, STATE 7017), (sym_string, STATE 6729), (sym_await, STATE 7017),
    (sym_identifier, ACTIONS 327), (anon_sym_import, ACTIONS 11), (anon_sym_from, ACTIONS 13),
    (anon_sym_LPAREN, ACTIONS 329), (anon_sym_STAR, ACTIONS 331), (anon_sym_print, ACTIONS 333),
    (anon_sym_comptime, ACTIONS 335), (anon_sym_assert, ACTIONS 23),
    (anon_sym___comptime_assert, ACTIONS 25), (anon_sym_return, ACTIONS 27),
    (anon_sym_del, ACTIONS 29), (anon_sym_raise, ACTIONS 31), (anon_sym_pass, ACTIONS 33),
    (anon_sym_break, ACTIONS 35), (anon_sym_continue, ACTIONS 37), (anon_sym_match, ACTIONS 337),
    (anon_sym_async, ACTIONS 339), (anon_sym_def, ACTIONS 341), (anon_sym_LBRACK, ACTIONS 343),
    (anon_sym_LBRACE, ACTIONS 61), (anon_sym_STAR_STAR, ACTIONS 345),
    (anon_sym_global, ACTIONS 63), (anon_sym_nonlocal, ACTIONS 65), (anon_sym_exec, ACTIONS 347),
    (anon_sym_type, ACTIONS 349), (anon_sym_mut, ACTIONS 339), (anon_sym_out, ACTIONS 339),
    (anon_sym_DASH, ACTIONS 79), (anon_sym_PLUS, ACTIONS 79), (anon_sym_ref, ACTIONS 81),
    (anon_sym_var, ACTIONS 81), (anon_sym_not, ACTIONS 83), (anon_sym_TILDE, ACTIONS 79),
    (anon_sym_lambda, ACTIONS 85), (anon_sym_yield, ACTIONS 87), (sym_ellipsis, ACTIONS 89),
    (anon_sym___mlir_type, ACTIONS 91), (sym_integer, ACTIONS 93), (sym_float, ACTIONS 89),
    (anon_sym_await, ACTIONS 351), (sym_true, ACTIONS 93), (sym_false, ACTIONS 93),
    (sym_none, ACTIONS 93), (sym_comment, ACTIONS 3), (sym_line_continuation, ACTIONS 3),
    (sym__newline, ACTIONS 869), (sym__indent, ACTIONS 871), (sym_string_start, ACTIONS 97)]"

definition parse_table_1059 :: "(nat \<times> nat) list" where "parse_table_1059 = [
    (sym__simple_statements, STATE 4464), (sym_import_statement, STATE 12239),
    (sym_future_import_statement, STATE 12239), (sym_import_from_statement, STATE 12239),
    (sym_print_statement, STATE 12239), (sym_assert_statement, STATE 12239),
    (sym_comptime_assert_statement, STATE 12239), (sym_expression_statement, STATE 12239),
    (sym_tuple_expression, STATE 12425), (sym_named_expression, STATE 7969),
    (sym__named_expression_lhs, STATE 12752), (sym_return_statement, STATE 12239),
    (sym_delete_statement, STATE 12239), (sym_raise_statement, STATE 12239),
    (sym_pass_statement, STATE 12239), (sym_break_statement, STATE 12239),
    (sym_continue_statement, STATE 12239), (sym_global_statement, STATE 12239),
    (sym_nonlocal_statement, STATE 12239), (sym_exec_statement, STATE 12239),
    (sym_type_alias_statement, STATE 12239), (sym_parameterized_alias_statement, STATE 12239),
    (sym_pattern, STATE 8086), (sym_tuple_pattern, STATE 8101), (sym_list_pattern, STATE 8101),
    (sym_list_splat_pattern, STATE 6795), (sym_as_pattern, STATE 7969),
    (sym_expression, STATE 9623), (sym_primary_expression, STATE 7326),
    (sym_comptime_expression, STATE 7017), (sym_transfer_expression, STATE 7017),
    (sym_not_operator, STATE 7969), (sym_boolean_operator, STATE 7969),
    (sym_binary_operator, STATE 7017), (sym_unary_operator, STATE 7017),
    (sym_comparison_operator, STATE 7969), (sym_lambda, STATE 7969),
    (sym_assignment, STATE 12425), (sym_augmented_assignment, STATE 12425),
    (sym_pattern_list, STATE 8578), (sym_yield, STATE 12425), (sym_attribute, STATE 6796),
    (sym_subscript, STATE 6797), (sym_call, STATE 6768), (sym_type, STATE 10130),
    (sym_called_type, STATE 9093), (sym_function_type, STATE 9093), (sym_splat_type, STATE 9093),
    (sym_generic_type, STATE 8287), (sym_union_type, STATE 9093),
    (sym_intersection_type, STATE 9093), (sym__intersection_operand, STATE 12294),
    (sym_constrained_type, STATE 9093), (sym_member_type, STATE 8165),
    (sym_mlir_type, STATE 7017), (sym_list, STATE 7017), (sym_set, STATE 7017),
    (sym_tuple, STATE 7017), (sym_dictionary, STATE 7017), (sym_struct_literal, STATE 7017),
    (sym_list_comprehension, STATE 7017), (sym_dictionary_comprehension, STATE 7017),
    (sym_set_comprehension, STATE 7017), (sym_generator_expression, STATE 7017),
    (sym_parenthesized_expression, STATE 7017), (sym_conditional_expression, STATE 7969),
    (sym_concatenated_string, STATE 7017), (sym_string, STATE 6729), (sym_await, STATE 7017),
    (sym_identifier, ACTIONS 327), (anon_sym_import, ACTIONS 11), (anon_sym_from, ACTIONS 13),
    (anon_sym_LPAREN, ACTIONS 329), (anon_sym_STAR, ACTIONS 331), (anon_sym_print, ACTIONS 333),
    (anon_sym_comptime, ACTIONS 335), (anon_sym_assert, ACTIONS 23),
    (anon_sym___comptime_assert, ACTIONS 25), (anon_sym_return, ACTIONS 27),
    (anon_sym_del, ACTIONS 29), (anon_sym_raise, ACTIONS 31), (anon_sym_pass, ACTIONS 33),
    (anon_sym_break, ACTIONS 35), (anon_sym_continue, ACTIONS 37), (anon_sym_match, ACTIONS 337),
    (anon_sym_async, ACTIONS 339), (anon_sym_def, ACTIONS 341), (anon_sym_LBRACK, ACTIONS 343),
    (anon_sym_LBRACE, ACTIONS 61), (anon_sym_STAR_STAR, ACTIONS 345),
    (anon_sym_global, ACTIONS 63), (anon_sym_nonlocal, ACTIONS 65), (anon_sym_exec, ACTIONS 347),
    (anon_sym_type, ACTIONS 349), (anon_sym_mut, ACTIONS 339), (anon_sym_out, ACTIONS 339),
    (anon_sym_DASH, ACTIONS 79), (anon_sym_PLUS, ACTIONS 79), (anon_sym_ref, ACTIONS 81),
    (anon_sym_var, ACTIONS 81), (anon_sym_not, ACTIONS 83), (anon_sym_TILDE, ACTIONS 79),
    (anon_sym_lambda, ACTIONS 85), (anon_sym_yield, ACTIONS 87), (sym_ellipsis, ACTIONS 89),
    (anon_sym___mlir_type, ACTIONS 91), (sym_integer, ACTIONS 93), (sym_float, ACTIONS 89),
    (anon_sym_await, ACTIONS 351), (sym_true, ACTIONS 93), (sym_false, ACTIONS 93),
    (sym_none, ACTIONS 93), (sym_comment, ACTIONS 3), (sym_line_continuation, ACTIONS 3),
    (sym__newline, ACTIONS 873), (sym__indent, ACTIONS 875), (sym_string_start, ACTIONS 97)]"

definition parse_table_1060 :: "(nat \<times> nat) list" where "parse_table_1060 = [
    (sym__simple_statements, STATE 5368), (sym_import_statement, STATE 12239),
    (sym_future_import_statement, STATE 12239), (sym_import_from_statement, STATE 12239),
    (sym_print_statement, STATE 12239), (sym_assert_statement, STATE 12239),
    (sym_comptime_assert_statement, STATE 12239), (sym_expression_statement, STATE 12239),
    (sym_tuple_expression, STATE 12425), (sym_named_expression, STATE 7969),
    (sym__named_expression_lhs, STATE 12752), (sym_return_statement, STATE 12239),
    (sym_delete_statement, STATE 12239), (sym_raise_statement, STATE 12239),
    (sym_pass_statement, STATE 12239), (sym_break_statement, STATE 12239),
    (sym_continue_statement, STATE 12239), (sym_global_statement, STATE 12239),
    (sym_nonlocal_statement, STATE 12239), (sym_exec_statement, STATE 12239),
    (sym_type_alias_statement, STATE 12239), (sym_parameterized_alias_statement, STATE 12239),
    (sym_pattern, STATE 8086), (sym_tuple_pattern, STATE 8101), (sym_list_pattern, STATE 8101),
    (sym_list_splat_pattern, STATE 6795), (sym_as_pattern, STATE 7969),
    (sym_expression, STATE 9623), (sym_primary_expression, STATE 7326),
    (sym_comptime_expression, STATE 7017), (sym_transfer_expression, STATE 7017),
    (sym_not_operator, STATE 7969), (sym_boolean_operator, STATE 7969),
    (sym_binary_operator, STATE 7017), (sym_unary_operator, STATE 7017),
    (sym_comparison_operator, STATE 7969), (sym_lambda, STATE 7969),
    (sym_assignment, STATE 12425), (sym_augmented_assignment, STATE 12425),
    (sym_pattern_list, STATE 8578), (sym_yield, STATE 12425), (sym_attribute, STATE 6796),
    (sym_subscript, STATE 6797), (sym_call, STATE 6768), (sym_type, STATE 10130),
    (sym_called_type, STATE 9093), (sym_function_type, STATE 9093), (sym_splat_type, STATE 9093),
    (sym_generic_type, STATE 8287), (sym_union_type, STATE 9093),
    (sym_intersection_type, STATE 9093), (sym__intersection_operand, STATE 12294),
    (sym_constrained_type, STATE 9093), (sym_member_type, STATE 8165),
    (sym_mlir_type, STATE 7017), (sym_list, STATE 7017), (sym_set, STATE 7017),
    (sym_tuple, STATE 7017), (sym_dictionary, STATE 7017), (sym_struct_literal, STATE 7017),
    (sym_list_comprehension, STATE 7017), (sym_dictionary_comprehension, STATE 7017),
    (sym_set_comprehension, STATE 7017), (sym_generator_expression, STATE 7017),
    (sym_parenthesized_expression, STATE 7017), (sym_conditional_expression, STATE 7969),
    (sym_concatenated_string, STATE 7017), (sym_string, STATE 6729), (sym_await, STATE 7017),
    (sym_identifier, ACTIONS 327), (anon_sym_import, ACTIONS 11), (anon_sym_from, ACTIONS 13),
    (anon_sym_LPAREN, ACTIONS 329), (anon_sym_STAR, ACTIONS 331), (anon_sym_print, ACTIONS 333),
    (anon_sym_comptime, ACTIONS 335), (anon_sym_assert, ACTIONS 23),
    (anon_sym___comptime_assert, ACTIONS 25), (anon_sym_return, ACTIONS 27),
    (anon_sym_del, ACTIONS 29), (anon_sym_raise, ACTIONS 31), (anon_sym_pass, ACTIONS 33),
    (anon_sym_break, ACTIONS 35), (anon_sym_continue, ACTIONS 37), (anon_sym_match, ACTIONS 337),
    (anon_sym_async, ACTIONS 339), (anon_sym_def, ACTIONS 341), (anon_sym_LBRACK, ACTIONS 343),
    (anon_sym_LBRACE, ACTIONS 61), (anon_sym_STAR_STAR, ACTIONS 345),
    (anon_sym_global, ACTIONS 63), (anon_sym_nonlocal, ACTIONS 65), (anon_sym_exec, ACTIONS 347),
    (anon_sym_type, ACTIONS 349), (anon_sym_mut, ACTIONS 339), (anon_sym_out, ACTIONS 339),
    (anon_sym_DASH, ACTIONS 79), (anon_sym_PLUS, ACTIONS 79), (anon_sym_ref, ACTIONS 81),
    (anon_sym_var, ACTIONS 81), (anon_sym_not, ACTIONS 83), (anon_sym_TILDE, ACTIONS 79),
    (anon_sym_lambda, ACTIONS 85), (anon_sym_yield, ACTIONS 87), (sym_ellipsis, ACTIONS 89),
    (anon_sym___mlir_type, ACTIONS 91), (sym_integer, ACTIONS 93), (sym_float, ACTIONS 89),
    (anon_sym_await, ACTIONS 351), (sym_true, ACTIONS 93), (sym_false, ACTIONS 93),
    (sym_none, ACTIONS 93), (sym_comment, ACTIONS 3), (sym_line_continuation, ACTIONS 3),
    (sym__newline, ACTIONS 877), (sym__indent, ACTIONS 879), (sym_string_start, ACTIONS 97)]"

definition parse_table_1061 :: "(nat \<times> nat) list" where "parse_table_1061 = [
    (sym__simple_statements, STATE 5372), (sym_import_statement, STATE 12239),
    (sym_future_import_statement, STATE 12239), (sym_import_from_statement, STATE 12239),
    (sym_print_statement, STATE 12239), (sym_assert_statement, STATE 12239),
    (sym_comptime_assert_statement, STATE 12239), (sym_expression_statement, STATE 12239),
    (sym_tuple_expression, STATE 12425), (sym_named_expression, STATE 7969),
    (sym__named_expression_lhs, STATE 12752), (sym_return_statement, STATE 12239),
    (sym_delete_statement, STATE 12239), (sym_raise_statement, STATE 12239),
    (sym_pass_statement, STATE 12239), (sym_break_statement, STATE 12239),
    (sym_continue_statement, STATE 12239), (sym_global_statement, STATE 12239),
    (sym_nonlocal_statement, STATE 12239), (sym_exec_statement, STATE 12239),
    (sym_type_alias_statement, STATE 12239), (sym_parameterized_alias_statement, STATE 12239),
    (sym_pattern, STATE 8086), (sym_tuple_pattern, STATE 8101), (sym_list_pattern, STATE 8101),
    (sym_list_splat_pattern, STATE 6795), (sym_as_pattern, STATE 7969),
    (sym_expression, STATE 9623), (sym_primary_expression, STATE 7326),
    (sym_comptime_expression, STATE 7017), (sym_transfer_expression, STATE 7017),
    (sym_not_operator, STATE 7969), (sym_boolean_operator, STATE 7969),
    (sym_binary_operator, STATE 7017), (sym_unary_operator, STATE 7017),
    (sym_comparison_operator, STATE 7969), (sym_lambda, STATE 7969),
    (sym_assignment, STATE 12425), (sym_augmented_assignment, STATE 12425),
    (sym_pattern_list, STATE 8578), (sym_yield, STATE 12425), (sym_attribute, STATE 6796),
    (sym_subscript, STATE 6797), (sym_call, STATE 6768), (sym_type, STATE 10130),
    (sym_called_type, STATE 9093), (sym_function_type, STATE 9093), (sym_splat_type, STATE 9093),
    (sym_generic_type, STATE 8287), (sym_union_type, STATE 9093),
    (sym_intersection_type, STATE 9093), (sym__intersection_operand, STATE 12294),
    (sym_constrained_type, STATE 9093), (sym_member_type, STATE 8165),
    (sym_mlir_type, STATE 7017), (sym_list, STATE 7017), (sym_set, STATE 7017),
    (sym_tuple, STATE 7017), (sym_dictionary, STATE 7017), (sym_struct_literal, STATE 7017),
    (sym_list_comprehension, STATE 7017), (sym_dictionary_comprehension, STATE 7017),
    (sym_set_comprehension, STATE 7017), (sym_generator_expression, STATE 7017),
    (sym_parenthesized_expression, STATE 7017), (sym_conditional_expression, STATE 7969),
    (sym_concatenated_string, STATE 7017), (sym_string, STATE 6729), (sym_await, STATE 7017),
    (sym_identifier, ACTIONS 327), (anon_sym_import, ACTIONS 11), (anon_sym_from, ACTIONS 13),
    (anon_sym_LPAREN, ACTIONS 329), (anon_sym_STAR, ACTIONS 331), (anon_sym_print, ACTIONS 333),
    (anon_sym_comptime, ACTIONS 335), (anon_sym_assert, ACTIONS 23),
    (anon_sym___comptime_assert, ACTIONS 25), (anon_sym_return, ACTIONS 27),
    (anon_sym_del, ACTIONS 29), (anon_sym_raise, ACTIONS 31), (anon_sym_pass, ACTIONS 33),
    (anon_sym_break, ACTIONS 35), (anon_sym_continue, ACTIONS 37), (anon_sym_match, ACTIONS 337),
    (anon_sym_async, ACTIONS 339), (anon_sym_def, ACTIONS 341), (anon_sym_LBRACK, ACTIONS 343),
    (anon_sym_LBRACE, ACTIONS 61), (anon_sym_STAR_STAR, ACTIONS 345),
    (anon_sym_global, ACTIONS 63), (anon_sym_nonlocal, ACTIONS 65), (anon_sym_exec, ACTIONS 347),
    (anon_sym_type, ACTIONS 349), (anon_sym_mut, ACTIONS 339), (anon_sym_out, ACTIONS 339),
    (anon_sym_DASH, ACTIONS 79), (anon_sym_PLUS, ACTIONS 79), (anon_sym_ref, ACTIONS 81),
    (anon_sym_var, ACTIONS 81), (anon_sym_not, ACTIONS 83), (anon_sym_TILDE, ACTIONS 79),
    (anon_sym_lambda, ACTIONS 85), (anon_sym_yield, ACTIONS 87), (sym_ellipsis, ACTIONS 89),
    (anon_sym___mlir_type, ACTIONS 91), (sym_integer, ACTIONS 93), (sym_float, ACTIONS 89),
    (anon_sym_await, ACTIONS 351), (sym_true, ACTIONS 93), (sym_false, ACTIONS 93),
    (sym_none, ACTIONS 93), (sym_comment, ACTIONS 3), (sym_line_continuation, ACTIONS 3),
    (sym__newline, ACTIONS 881), (sym__indent, ACTIONS 883), (sym_string_start, ACTIONS 97)]"

definition parse_table_1062 :: "(nat \<times> nat) list" where "parse_table_1062 = [
    (sym__simple_statements, STATE 6488), (sym_import_statement, STATE 11814),
    (sym_future_import_statement, STATE 11814), (sym_import_from_statement, STATE 11814),
    (sym_print_statement, STATE 11814), (sym_assert_statement, STATE 11814),
    (sym_comptime_assert_statement, STATE 11814), (sym_expression_statement, STATE 11814),
    (sym_tuple_expression, STATE 12425), (sym_named_expression, STATE 7969),
    (sym__named_expression_lhs, STATE 12752), (sym_return_statement, STATE 11814),
    (sym_delete_statement, STATE 11814), (sym_raise_statement, STATE 11814),
    (sym_pass_statement, STATE 11814), (sym_break_statement, STATE 11814),
    (sym_continue_statement, STATE 11814), (sym_global_statement, STATE 11814),
    (sym_nonlocal_statement, STATE 11814), (sym_exec_statement, STATE 11814),
    (sym_type_alias_statement, STATE 11814), (sym_parameterized_alias_statement, STATE 11814),
    (sym_pattern, STATE 8086), (sym_tuple_pattern, STATE 8101), (sym_list_pattern, STATE 8101),
    (sym_list_splat_pattern, STATE 6795), (sym_as_pattern, STATE 7969),
    (sym_expression, STATE 9623), (sym_primary_expression, STATE 7326),
    (sym_comptime_expression, STATE 7017), (sym_transfer_expression, STATE 7017),
    (sym_not_operator, STATE 7969), (sym_boolean_operator, STATE 7969),
    (sym_binary_operator, STATE 7017), (sym_unary_operator, STATE 7017),
    (sym_comparison_operator, STATE 7969), (sym_lambda, STATE 7969),
    (sym_assignment, STATE 12425), (sym_augmented_assignment, STATE 12425),
    (sym_pattern_list, STATE 8578), (sym_yield, STATE 12425), (sym_attribute, STATE 6796),
    (sym_subscript, STATE 6797), (sym_call, STATE 6768), (sym_type, STATE 10130),
    (sym_called_type, STATE 9093), (sym_function_type, STATE 9093), (sym_splat_type, STATE 9093),
    (sym_generic_type, STATE 8287), (sym_union_type, STATE 9093),
    (sym_intersection_type, STATE 9093), (sym__intersection_operand, STATE 12294),
    (sym_constrained_type, STATE 9093), (sym_member_type, STATE 8165),
    (sym_mlir_type, STATE 7017), (sym_list, STATE 7017), (sym_set, STATE 7017),
    (sym_tuple, STATE 7017), (sym_dictionary, STATE 7017), (sym_struct_literal, STATE 7017),
    (sym_list_comprehension, STATE 7017), (sym_dictionary_comprehension, STATE 7017),
    (sym_set_comprehension, STATE 7017), (sym_generator_expression, STATE 7017),
    (sym_parenthesized_expression, STATE 7017), (sym_conditional_expression, STATE 7969),
    (sym_concatenated_string, STATE 7017), (sym_string, STATE 6729), (sym_await, STATE 7017),
    (sym_identifier, ACTIONS 327), (anon_sym_import, ACTIONS 11), (anon_sym_from, ACTIONS 13),
    (anon_sym_LPAREN, ACTIONS 329), (anon_sym_STAR, ACTIONS 331), (anon_sym_print, ACTIONS 333),
    (anon_sym_comptime, ACTIONS 335), (anon_sym_assert, ACTIONS 23),
    (anon_sym___comptime_assert, ACTIONS 25), (anon_sym_return, ACTIONS 27),
    (anon_sym_del, ACTIONS 29), (anon_sym_raise, ACTIONS 31), (anon_sym_pass, ACTIONS 33),
    (anon_sym_break, ACTIONS 35), (anon_sym_continue, ACTIONS 37), (anon_sym_match, ACTIONS 337),
    (anon_sym_async, ACTIONS 339), (anon_sym_def, ACTIONS 341), (anon_sym_LBRACK, ACTIONS 343),
    (anon_sym_LBRACE, ACTIONS 61), (anon_sym_STAR_STAR, ACTIONS 345),
    (anon_sym_global, ACTIONS 63), (anon_sym_nonlocal, ACTIONS 65), (anon_sym_exec, ACTIONS 347),
    (anon_sym_type, ACTIONS 349), (anon_sym_mut, ACTIONS 339), (anon_sym_out, ACTIONS 339),
    (anon_sym_DASH, ACTIONS 79), (anon_sym_PLUS, ACTIONS 79), (anon_sym_ref, ACTIONS 81),
    (anon_sym_var, ACTIONS 81), (anon_sym_not, ACTIONS 83), (anon_sym_TILDE, ACTIONS 79),
    (anon_sym_lambda, ACTIONS 85), (anon_sym_yield, ACTIONS 87), (sym_ellipsis, ACTIONS 89),
    (anon_sym___mlir_type, ACTIONS 91), (sym_integer, ACTIONS 93), (sym_float, ACTIONS 89),
    (anon_sym_await, ACTIONS 351), (sym_true, ACTIONS 93), (sym_false, ACTIONS 93),
    (sym_none, ACTIONS 93), (sym_comment, ACTIONS 3), (sym_line_continuation, ACTIONS 3),
    (sym__newline, ACTIONS 885), (sym__indent, ACTIONS 887), (sym_string_start, ACTIONS 97)]"

definition parse_table_1063 :: "(nat \<times> nat) list" where "parse_table_1063 = [
    (sym__simple_statements, STATE 4560), (sym_import_statement, STATE 12239),
    (sym_future_import_statement, STATE 12239), (sym_import_from_statement, STATE 12239),
    (sym_print_statement, STATE 12239), (sym_assert_statement, STATE 12239),
    (sym_comptime_assert_statement, STATE 12239), (sym_expression_statement, STATE 12239),
    (sym_tuple_expression, STATE 12425), (sym_named_expression, STATE 7969),
    (sym__named_expression_lhs, STATE 12752), (sym_return_statement, STATE 12239),
    (sym_delete_statement, STATE 12239), (sym_raise_statement, STATE 12239),
    (sym_pass_statement, STATE 12239), (sym_break_statement, STATE 12239),
    (sym_continue_statement, STATE 12239), (sym_global_statement, STATE 12239),
    (sym_nonlocal_statement, STATE 12239), (sym_exec_statement, STATE 12239),
    (sym_type_alias_statement, STATE 12239), (sym_parameterized_alias_statement, STATE 12239),
    (sym_pattern, STATE 8086), (sym_tuple_pattern, STATE 8101), (sym_list_pattern, STATE 8101),
    (sym_list_splat_pattern, STATE 6795), (sym_as_pattern, STATE 7969),
    (sym_expression, STATE 9623), (sym_primary_expression, STATE 7326),
    (sym_comptime_expression, STATE 7017), (sym_transfer_expression, STATE 7017),
    (sym_not_operator, STATE 7969), (sym_boolean_operator, STATE 7969),
    (sym_binary_operator, STATE 7017), (sym_unary_operator, STATE 7017),
    (sym_comparison_operator, STATE 7969), (sym_lambda, STATE 7969),
    (sym_assignment, STATE 12425), (sym_augmented_assignment, STATE 12425),
    (sym_pattern_list, STATE 8578), (sym_yield, STATE 12425), (sym_attribute, STATE 6796),
    (sym_subscript, STATE 6797), (sym_call, STATE 6768), (sym_type, STATE 10130),
    (sym_called_type, STATE 9093), (sym_function_type, STATE 9093), (sym_splat_type, STATE 9093),
    (sym_generic_type, STATE 8287), (sym_union_type, STATE 9093),
    (sym_intersection_type, STATE 9093), (sym__intersection_operand, STATE 12294),
    (sym_constrained_type, STATE 9093), (sym_member_type, STATE 8165),
    (sym_mlir_type, STATE 7017), (sym_list, STATE 7017), (sym_set, STATE 7017),
    (sym_tuple, STATE 7017), (sym_dictionary, STATE 7017), (sym_struct_literal, STATE 7017),
    (sym_list_comprehension, STATE 7017), (sym_dictionary_comprehension, STATE 7017),
    (sym_set_comprehension, STATE 7017), (sym_generator_expression, STATE 7017),
    (sym_parenthesized_expression, STATE 7017), (sym_conditional_expression, STATE 7969),
    (sym_concatenated_string, STATE 7017), (sym_string, STATE 6729), (sym_await, STATE 7017),
    (sym_identifier, ACTIONS 327), (anon_sym_import, ACTIONS 11), (anon_sym_from, ACTIONS 13),
    (anon_sym_LPAREN, ACTIONS 329), (anon_sym_STAR, ACTIONS 331), (anon_sym_print, ACTIONS 333),
    (anon_sym_comptime, ACTIONS 335), (anon_sym_assert, ACTIONS 23),
    (anon_sym___comptime_assert, ACTIONS 25), (anon_sym_return, ACTIONS 27),
    (anon_sym_del, ACTIONS 29), (anon_sym_raise, ACTIONS 31), (anon_sym_pass, ACTIONS 33),
    (anon_sym_break, ACTIONS 35), (anon_sym_continue, ACTIONS 37), (anon_sym_match, ACTIONS 337),
    (anon_sym_async, ACTIONS 339), (anon_sym_def, ACTIONS 341), (anon_sym_LBRACK, ACTIONS 343),
    (anon_sym_LBRACE, ACTIONS 61), (anon_sym_STAR_STAR, ACTIONS 345),
    (anon_sym_global, ACTIONS 63), (anon_sym_nonlocal, ACTIONS 65), (anon_sym_exec, ACTIONS 347),
    (anon_sym_type, ACTIONS 349), (anon_sym_mut, ACTIONS 339), (anon_sym_out, ACTIONS 339),
    (anon_sym_DASH, ACTIONS 79), (anon_sym_PLUS, ACTIONS 79), (anon_sym_ref, ACTIONS 81),
    (anon_sym_var, ACTIONS 81), (anon_sym_not, ACTIONS 83), (anon_sym_TILDE, ACTIONS 79),
    (anon_sym_lambda, ACTIONS 85), (anon_sym_yield, ACTIONS 87), (sym_ellipsis, ACTIONS 89),
    (anon_sym___mlir_type, ACTIONS 91), (sym_integer, ACTIONS 93), (sym_float, ACTIONS 89),
    (anon_sym_await, ACTIONS 351), (sym_true, ACTIONS 93), (sym_false, ACTIONS 93),
    (sym_none, ACTIONS 93), (sym_comment, ACTIONS 3), (sym_line_continuation, ACTIONS 3),
    (sym__newline, ACTIONS 889), (sym__indent, ACTIONS 891), (sym_string_start, ACTIONS 97)]"

definition parse_table_1064 :: "(nat \<times> nat) list" where "parse_table_1064 = [
    (sym__simple_statements, STATE 6492), (sym_import_statement, STATE 11814),
    (sym_future_import_statement, STATE 11814), (sym_import_from_statement, STATE 11814),
    (sym_print_statement, STATE 11814), (sym_assert_statement, STATE 11814),
    (sym_comptime_assert_statement, STATE 11814), (sym_expression_statement, STATE 11814),
    (sym_tuple_expression, STATE 12425), (sym_named_expression, STATE 7969),
    (sym__named_expression_lhs, STATE 12752), (sym_return_statement, STATE 11814),
    (sym_delete_statement, STATE 11814), (sym_raise_statement, STATE 11814),
    (sym_pass_statement, STATE 11814), (sym_break_statement, STATE 11814),
    (sym_continue_statement, STATE 11814), (sym_global_statement, STATE 11814),
    (sym_nonlocal_statement, STATE 11814), (sym_exec_statement, STATE 11814),
    (sym_type_alias_statement, STATE 11814), (sym_parameterized_alias_statement, STATE 11814),
    (sym_pattern, STATE 8086), (sym_tuple_pattern, STATE 8101), (sym_list_pattern, STATE 8101),
    (sym_list_splat_pattern, STATE 6795), (sym_as_pattern, STATE 7969),
    (sym_expression, STATE 9623), (sym_primary_expression, STATE 7326),
    (sym_comptime_expression, STATE 7017), (sym_transfer_expression, STATE 7017),
    (sym_not_operator, STATE 7969), (sym_boolean_operator, STATE 7969),
    (sym_binary_operator, STATE 7017), (sym_unary_operator, STATE 7017),
    (sym_comparison_operator, STATE 7969), (sym_lambda, STATE 7969),
    (sym_assignment, STATE 12425), (sym_augmented_assignment, STATE 12425),
    (sym_pattern_list, STATE 8578), (sym_yield, STATE 12425), (sym_attribute, STATE 6796),
    (sym_subscript, STATE 6797), (sym_call, STATE 6768), (sym_type, STATE 10130),
    (sym_called_type, STATE 9093), (sym_function_type, STATE 9093), (sym_splat_type, STATE 9093),
    (sym_generic_type, STATE 8287), (sym_union_type, STATE 9093),
    (sym_intersection_type, STATE 9093), (sym__intersection_operand, STATE 12294),
    (sym_constrained_type, STATE 9093), (sym_member_type, STATE 8165),
    (sym_mlir_type, STATE 7017), (sym_list, STATE 7017), (sym_set, STATE 7017),
    (sym_tuple, STATE 7017), (sym_dictionary, STATE 7017), (sym_struct_literal, STATE 7017),
    (sym_list_comprehension, STATE 7017), (sym_dictionary_comprehension, STATE 7017),
    (sym_set_comprehension, STATE 7017), (sym_generator_expression, STATE 7017),
    (sym_parenthesized_expression, STATE 7017), (sym_conditional_expression, STATE 7969),
    (sym_concatenated_string, STATE 7017), (sym_string, STATE 6729), (sym_await, STATE 7017),
    (sym_identifier, ACTIONS 327), (anon_sym_import, ACTIONS 11), (anon_sym_from, ACTIONS 13),
    (anon_sym_LPAREN, ACTIONS 329), (anon_sym_STAR, ACTIONS 331), (anon_sym_print, ACTIONS 333),
    (anon_sym_comptime, ACTIONS 335), (anon_sym_assert, ACTIONS 23),
    (anon_sym___comptime_assert, ACTIONS 25), (anon_sym_return, ACTIONS 27),
    (anon_sym_del, ACTIONS 29), (anon_sym_raise, ACTIONS 31), (anon_sym_pass, ACTIONS 33),
    (anon_sym_break, ACTIONS 35), (anon_sym_continue, ACTIONS 37), (anon_sym_match, ACTIONS 337),
    (anon_sym_async, ACTIONS 339), (anon_sym_def, ACTIONS 341), (anon_sym_LBRACK, ACTIONS 343),
    (anon_sym_LBRACE, ACTIONS 61), (anon_sym_STAR_STAR, ACTIONS 345),
    (anon_sym_global, ACTIONS 63), (anon_sym_nonlocal, ACTIONS 65), (anon_sym_exec, ACTIONS 347),
    (anon_sym_type, ACTIONS 349), (anon_sym_mut, ACTIONS 339), (anon_sym_out, ACTIONS 339),
    (anon_sym_DASH, ACTIONS 79), (anon_sym_PLUS, ACTIONS 79), (anon_sym_ref, ACTIONS 81),
    (anon_sym_var, ACTIONS 81), (anon_sym_not, ACTIONS 83), (anon_sym_TILDE, ACTIONS 79),
    (anon_sym_lambda, ACTIONS 85), (anon_sym_yield, ACTIONS 87), (sym_ellipsis, ACTIONS 89),
    (anon_sym___mlir_type, ACTIONS 91), (sym_integer, ACTIONS 93), (sym_float, ACTIONS 89),
    (anon_sym_await, ACTIONS 351), (sym_true, ACTIONS 93), (sym_false, ACTIONS 93),
    (sym_none, ACTIONS 93), (sym_comment, ACTIONS 3), (sym_line_continuation, ACTIONS 3),
    (sym__newline, ACTIONS 893), (sym__indent, ACTIONS 895), (sym_string_start, ACTIONS 97)]"

definition parse_table_1065 :: "(nat \<times> nat) list" where "parse_table_1065 = [
    (sym__simple_statements, STATE 6494), (sym_import_statement, STATE 11814),
    (sym_future_import_statement, STATE 11814), (sym_import_from_statement, STATE 11814),
    (sym_print_statement, STATE 11814), (sym_assert_statement, STATE 11814),
    (sym_comptime_assert_statement, STATE 11814), (sym_expression_statement, STATE 11814),
    (sym_tuple_expression, STATE 12425), (sym_named_expression, STATE 7969),
    (sym__named_expression_lhs, STATE 12752), (sym_return_statement, STATE 11814),
    (sym_delete_statement, STATE 11814), (sym_raise_statement, STATE 11814),
    (sym_pass_statement, STATE 11814), (sym_break_statement, STATE 11814),
    (sym_continue_statement, STATE 11814), (sym_global_statement, STATE 11814),
    (sym_nonlocal_statement, STATE 11814), (sym_exec_statement, STATE 11814),
    (sym_type_alias_statement, STATE 11814), (sym_parameterized_alias_statement, STATE 11814),
    (sym_pattern, STATE 8086), (sym_tuple_pattern, STATE 8101), (sym_list_pattern, STATE 8101),
    (sym_list_splat_pattern, STATE 6795), (sym_as_pattern, STATE 7969),
    (sym_expression, STATE 9623), (sym_primary_expression, STATE 7326),
    (sym_comptime_expression, STATE 7017), (sym_transfer_expression, STATE 7017),
    (sym_not_operator, STATE 7969), (sym_boolean_operator, STATE 7969),
    (sym_binary_operator, STATE 7017), (sym_unary_operator, STATE 7017),
    (sym_comparison_operator, STATE 7969), (sym_lambda, STATE 7969),
    (sym_assignment, STATE 12425), (sym_augmented_assignment, STATE 12425),
    (sym_pattern_list, STATE 8578), (sym_yield, STATE 12425), (sym_attribute, STATE 6796),
    (sym_subscript, STATE 6797), (sym_call, STATE 6768), (sym_type, STATE 10130),
    (sym_called_type, STATE 9093), (sym_function_type, STATE 9093), (sym_splat_type, STATE 9093),
    (sym_generic_type, STATE 8287), (sym_union_type, STATE 9093),
    (sym_intersection_type, STATE 9093), (sym__intersection_operand, STATE 12294),
    (sym_constrained_type, STATE 9093), (sym_member_type, STATE 8165),
    (sym_mlir_type, STATE 7017), (sym_list, STATE 7017), (sym_set, STATE 7017),
    (sym_tuple, STATE 7017), (sym_dictionary, STATE 7017), (sym_struct_literal, STATE 7017),
    (sym_list_comprehension, STATE 7017), (sym_dictionary_comprehension, STATE 7017),
    (sym_set_comprehension, STATE 7017), (sym_generator_expression, STATE 7017),
    (sym_parenthesized_expression, STATE 7017), (sym_conditional_expression, STATE 7969),
    (sym_concatenated_string, STATE 7017), (sym_string, STATE 6729), (sym_await, STATE 7017),
    (sym_identifier, ACTIONS 327), (anon_sym_import, ACTIONS 11), (anon_sym_from, ACTIONS 13),
    (anon_sym_LPAREN, ACTIONS 329), (anon_sym_STAR, ACTIONS 331), (anon_sym_print, ACTIONS 333),
    (anon_sym_comptime, ACTIONS 335), (anon_sym_assert, ACTIONS 23),
    (anon_sym___comptime_assert, ACTIONS 25), (anon_sym_return, ACTIONS 27),
    (anon_sym_del, ACTIONS 29), (anon_sym_raise, ACTIONS 31), (anon_sym_pass, ACTIONS 33),
    (anon_sym_break, ACTIONS 35), (anon_sym_continue, ACTIONS 37), (anon_sym_match, ACTIONS 337),
    (anon_sym_async, ACTIONS 339), (anon_sym_def, ACTIONS 341), (anon_sym_LBRACK, ACTIONS 343),
    (anon_sym_LBRACE, ACTIONS 61), (anon_sym_STAR_STAR, ACTIONS 345),
    (anon_sym_global, ACTIONS 63), (anon_sym_nonlocal, ACTIONS 65), (anon_sym_exec, ACTIONS 347),
    (anon_sym_type, ACTIONS 349), (anon_sym_mut, ACTIONS 339), (anon_sym_out, ACTIONS 339),
    (anon_sym_DASH, ACTIONS 79), (anon_sym_PLUS, ACTIONS 79), (anon_sym_ref, ACTIONS 81),
    (anon_sym_var, ACTIONS 81), (anon_sym_not, ACTIONS 83), (anon_sym_TILDE, ACTIONS 79),
    (anon_sym_lambda, ACTIONS 85), (anon_sym_yield, ACTIONS 87), (sym_ellipsis, ACTIONS 89),
    (anon_sym___mlir_type, ACTIONS 91), (sym_integer, ACTIONS 93), (sym_float, ACTIONS 89),
    (anon_sym_await, ACTIONS 351), (sym_true, ACTIONS 93), (sym_false, ACTIONS 93),
    (sym_none, ACTIONS 93), (sym_comment, ACTIONS 3), (sym_line_continuation, ACTIONS 3),
    (sym__newline, ACTIONS 897), (sym__indent, ACTIONS 899), (sym_string_start, ACTIONS 97)]"

definition parse_table_1066 :: "(nat \<times> nat) list" where "parse_table_1066 = [
    (sym__simple_statements, STATE 5665), (sym_import_statement, STATE 11814),
    (sym_future_import_statement, STATE 11814), (sym_import_from_statement, STATE 11814),
    (sym_print_statement, STATE 11814), (sym_assert_statement, STATE 11814),
    (sym_comptime_assert_statement, STATE 11814), (sym_expression_statement, STATE 11814),
    (sym_tuple_expression, STATE 12425), (sym_named_expression, STATE 7969),
    (sym__named_expression_lhs, STATE 12752), (sym_return_statement, STATE 11814),
    (sym_delete_statement, STATE 11814), (sym_raise_statement, STATE 11814),
    (sym_pass_statement, STATE 11814), (sym_break_statement, STATE 11814),
    (sym_continue_statement, STATE 11814), (sym_global_statement, STATE 11814),
    (sym_nonlocal_statement, STATE 11814), (sym_exec_statement, STATE 11814),
    (sym_type_alias_statement, STATE 11814), (sym_parameterized_alias_statement, STATE 11814),
    (sym_pattern, STATE 8086), (sym_tuple_pattern, STATE 8101), (sym_list_pattern, STATE 8101),
    (sym_list_splat_pattern, STATE 6795), (sym_as_pattern, STATE 7969),
    (sym_expression, STATE 9623), (sym_primary_expression, STATE 7326),
    (sym_comptime_expression, STATE 7017), (sym_transfer_expression, STATE 7017),
    (sym_not_operator, STATE 7969), (sym_boolean_operator, STATE 7969),
    (sym_binary_operator, STATE 7017), (sym_unary_operator, STATE 7017),
    (sym_comparison_operator, STATE 7969), (sym_lambda, STATE 7969),
    (sym_assignment, STATE 12425), (sym_augmented_assignment, STATE 12425),
    (sym_pattern_list, STATE 8578), (sym_yield, STATE 12425), (sym_attribute, STATE 6796),
    (sym_subscript, STATE 6797), (sym_call, STATE 6768), (sym_type, STATE 10130),
    (sym_called_type, STATE 9093), (sym_function_type, STATE 9093), (sym_splat_type, STATE 9093),
    (sym_generic_type, STATE 8287), (sym_union_type, STATE 9093),
    (sym_intersection_type, STATE 9093), (sym__intersection_operand, STATE 12294),
    (sym_constrained_type, STATE 9093), (sym_member_type, STATE 8165),
    (sym_mlir_type, STATE 7017), (sym_list, STATE 7017), (sym_set, STATE 7017),
    (sym_tuple, STATE 7017), (sym_dictionary, STATE 7017), (sym_struct_literal, STATE 7017),
    (sym_list_comprehension, STATE 7017), (sym_dictionary_comprehension, STATE 7017),
    (sym_set_comprehension, STATE 7017), (sym_generator_expression, STATE 7017),
    (sym_parenthesized_expression, STATE 7017), (sym_conditional_expression, STATE 7969),
    (sym_concatenated_string, STATE 7017), (sym_string, STATE 6729), (sym_await, STATE 7017),
    (sym_identifier, ACTIONS 327), (anon_sym_import, ACTIONS 11), (anon_sym_from, ACTIONS 13),
    (anon_sym_LPAREN, ACTIONS 329), (anon_sym_STAR, ACTIONS 331), (anon_sym_print, ACTIONS 333),
    (anon_sym_comptime, ACTIONS 335), (anon_sym_assert, ACTIONS 23),
    (anon_sym___comptime_assert, ACTIONS 25), (anon_sym_return, ACTIONS 27),
    (anon_sym_del, ACTIONS 29), (anon_sym_raise, ACTIONS 31), (anon_sym_pass, ACTIONS 33),
    (anon_sym_break, ACTIONS 35), (anon_sym_continue, ACTIONS 37), (anon_sym_match, ACTIONS 337),
    (anon_sym_async, ACTIONS 339), (anon_sym_def, ACTIONS 341), (anon_sym_LBRACK, ACTIONS 343),
    (anon_sym_LBRACE, ACTIONS 61), (anon_sym_STAR_STAR, ACTIONS 345),
    (anon_sym_global, ACTIONS 63), (anon_sym_nonlocal, ACTIONS 65), (anon_sym_exec, ACTIONS 347),
    (anon_sym_type, ACTIONS 349), (anon_sym_mut, ACTIONS 339), (anon_sym_out, ACTIONS 339),
    (anon_sym_DASH, ACTIONS 79), (anon_sym_PLUS, ACTIONS 79), (anon_sym_ref, ACTIONS 81),
    (anon_sym_var, ACTIONS 81), (anon_sym_not, ACTIONS 83), (anon_sym_TILDE, ACTIONS 79),
    (anon_sym_lambda, ACTIONS 85), (anon_sym_yield, ACTIONS 87), (sym_ellipsis, ACTIONS 89),
    (anon_sym___mlir_type, ACTIONS 91), (sym_integer, ACTIONS 93), (sym_float, ACTIONS 89),
    (anon_sym_await, ACTIONS 351), (sym_true, ACTIONS 93), (sym_false, ACTIONS 93),
    (sym_none, ACTIONS 93), (sym_comment, ACTIONS 3), (sym_line_continuation, ACTIONS 3),
    (sym__newline, ACTIONS 901), (sym__indent, ACTIONS 903), (sym_string_start, ACTIONS 97)]"

definition parse_table_1067 :: "(nat \<times> nat) list" where "parse_table_1067 = [
    (sym__simple_statements, STATE 6499), (sym_import_statement, STATE 11814),
    (sym_future_import_statement, STATE 11814), (sym_import_from_statement, STATE 11814),
    (sym_print_statement, STATE 11814), (sym_assert_statement, STATE 11814),
    (sym_comptime_assert_statement, STATE 11814), (sym_expression_statement, STATE 11814),
    (sym_tuple_expression, STATE 12425), (sym_named_expression, STATE 7969),
    (sym__named_expression_lhs, STATE 12752), (sym_return_statement, STATE 11814),
    (sym_delete_statement, STATE 11814), (sym_raise_statement, STATE 11814),
    (sym_pass_statement, STATE 11814), (sym_break_statement, STATE 11814),
    (sym_continue_statement, STATE 11814), (sym_global_statement, STATE 11814),
    (sym_nonlocal_statement, STATE 11814), (sym_exec_statement, STATE 11814),
    (sym_type_alias_statement, STATE 11814), (sym_parameterized_alias_statement, STATE 11814),
    (sym_pattern, STATE 8086), (sym_tuple_pattern, STATE 8101), (sym_list_pattern, STATE 8101),
    (sym_list_splat_pattern, STATE 6795), (sym_as_pattern, STATE 7969),
    (sym_expression, STATE 9623), (sym_primary_expression, STATE 7326),
    (sym_comptime_expression, STATE 7017), (sym_transfer_expression, STATE 7017),
    (sym_not_operator, STATE 7969), (sym_boolean_operator, STATE 7969),
    (sym_binary_operator, STATE 7017), (sym_unary_operator, STATE 7017),
    (sym_comparison_operator, STATE 7969), (sym_lambda, STATE 7969),
    (sym_assignment, STATE 12425), (sym_augmented_assignment, STATE 12425),
    (sym_pattern_list, STATE 8578), (sym_yield, STATE 12425), (sym_attribute, STATE 6796),
    (sym_subscript, STATE 6797), (sym_call, STATE 6768), (sym_type, STATE 10130),
    (sym_called_type, STATE 9093), (sym_function_type, STATE 9093), (sym_splat_type, STATE 9093),
    (sym_generic_type, STATE 8287), (sym_union_type, STATE 9093),
    (sym_intersection_type, STATE 9093), (sym__intersection_operand, STATE 12294),
    (sym_constrained_type, STATE 9093), (sym_member_type, STATE 8165),
    (sym_mlir_type, STATE 7017), (sym_list, STATE 7017), (sym_set, STATE 7017),
    (sym_tuple, STATE 7017), (sym_dictionary, STATE 7017), (sym_struct_literal, STATE 7017),
    (sym_list_comprehension, STATE 7017), (sym_dictionary_comprehension, STATE 7017),
    (sym_set_comprehension, STATE 7017), (sym_generator_expression, STATE 7017),
    (sym_parenthesized_expression, STATE 7017), (sym_conditional_expression, STATE 7969),
    (sym_concatenated_string, STATE 7017), (sym_string, STATE 6729), (sym_await, STATE 7017),
    (sym_identifier, ACTIONS 327), (anon_sym_import, ACTIONS 11), (anon_sym_from, ACTIONS 13),
    (anon_sym_LPAREN, ACTIONS 329), (anon_sym_STAR, ACTIONS 331), (anon_sym_print, ACTIONS 333),
    (anon_sym_comptime, ACTIONS 335), (anon_sym_assert, ACTIONS 23),
    (anon_sym___comptime_assert, ACTIONS 25), (anon_sym_return, ACTIONS 27),
    (anon_sym_del, ACTIONS 29), (anon_sym_raise, ACTIONS 31), (anon_sym_pass, ACTIONS 33),
    (anon_sym_break, ACTIONS 35), (anon_sym_continue, ACTIONS 37), (anon_sym_match, ACTIONS 337),
    (anon_sym_async, ACTIONS 339), (anon_sym_def, ACTIONS 341), (anon_sym_LBRACK, ACTIONS 343),
    (anon_sym_LBRACE, ACTIONS 61), (anon_sym_STAR_STAR, ACTIONS 345),
    (anon_sym_global, ACTIONS 63), (anon_sym_nonlocal, ACTIONS 65), (anon_sym_exec, ACTIONS 347),
    (anon_sym_type, ACTIONS 349), (anon_sym_mut, ACTIONS 339), (anon_sym_out, ACTIONS 339),
    (anon_sym_DASH, ACTIONS 79), (anon_sym_PLUS, ACTIONS 79), (anon_sym_ref, ACTIONS 81),
    (anon_sym_var, ACTIONS 81), (anon_sym_not, ACTIONS 83), (anon_sym_TILDE, ACTIONS 79),
    (anon_sym_lambda, ACTIONS 85), (anon_sym_yield, ACTIONS 87), (sym_ellipsis, ACTIONS 89),
    (anon_sym___mlir_type, ACTIONS 91), (sym_integer, ACTIONS 93), (sym_float, ACTIONS 89),
    (anon_sym_await, ACTIONS 351), (sym_true, ACTIONS 93), (sym_false, ACTIONS 93),
    (sym_none, ACTIONS 93), (sym_comment, ACTIONS 3), (sym_line_continuation, ACTIONS 3),
    (sym__newline, ACTIONS 905), (sym__indent, ACTIONS 907), (sym_string_start, ACTIONS 97)]"

definition parse_table_1068 :: "(nat \<times> nat) list" where "parse_table_1068 = [
    (sym__simple_statements, STATE 5380), (sym_import_statement, STATE 12239),
    (sym_future_import_statement, STATE 12239), (sym_import_from_statement, STATE 12239),
    (sym_print_statement, STATE 12239), (sym_assert_statement, STATE 12239),
    (sym_comptime_assert_statement, STATE 12239), (sym_expression_statement, STATE 12239),
    (sym_tuple_expression, STATE 12425), (sym_named_expression, STATE 7969),
    (sym__named_expression_lhs, STATE 12752), (sym_return_statement, STATE 12239),
    (sym_delete_statement, STATE 12239), (sym_raise_statement, STATE 12239),
    (sym_pass_statement, STATE 12239), (sym_break_statement, STATE 12239),
    (sym_continue_statement, STATE 12239), (sym_global_statement, STATE 12239),
    (sym_nonlocal_statement, STATE 12239), (sym_exec_statement, STATE 12239),
    (sym_type_alias_statement, STATE 12239), (sym_parameterized_alias_statement, STATE 12239),
    (sym_pattern, STATE 8086), (sym_tuple_pattern, STATE 8101), (sym_list_pattern, STATE 8101),
    (sym_list_splat_pattern, STATE 6795), (sym_as_pattern, STATE 7969),
    (sym_expression, STATE 9623), (sym_primary_expression, STATE 7326),
    (sym_comptime_expression, STATE 7017), (sym_transfer_expression, STATE 7017),
    (sym_not_operator, STATE 7969), (sym_boolean_operator, STATE 7969),
    (sym_binary_operator, STATE 7017), (sym_unary_operator, STATE 7017),
    (sym_comparison_operator, STATE 7969), (sym_lambda, STATE 7969),
    (sym_assignment, STATE 12425), (sym_augmented_assignment, STATE 12425),
    (sym_pattern_list, STATE 8578), (sym_yield, STATE 12425), (sym_attribute, STATE 6796),
    (sym_subscript, STATE 6797), (sym_call, STATE 6768), (sym_type, STATE 10130),
    (sym_called_type, STATE 9093), (sym_function_type, STATE 9093), (sym_splat_type, STATE 9093),
    (sym_generic_type, STATE 8287), (sym_union_type, STATE 9093),
    (sym_intersection_type, STATE 9093), (sym__intersection_operand, STATE 12294),
    (sym_constrained_type, STATE 9093), (sym_member_type, STATE 8165),
    (sym_mlir_type, STATE 7017), (sym_list, STATE 7017), (sym_set, STATE 7017),
    (sym_tuple, STATE 7017), (sym_dictionary, STATE 7017), (sym_struct_literal, STATE 7017),
    (sym_list_comprehension, STATE 7017), (sym_dictionary_comprehension, STATE 7017),
    (sym_set_comprehension, STATE 7017), (sym_generator_expression, STATE 7017),
    (sym_parenthesized_expression, STATE 7017), (sym_conditional_expression, STATE 7969),
    (sym_concatenated_string, STATE 7017), (sym_string, STATE 6729), (sym_await, STATE 7017),
    (sym_identifier, ACTIONS 327), (anon_sym_import, ACTIONS 11), (anon_sym_from, ACTIONS 13),
    (anon_sym_LPAREN, ACTIONS 329), (anon_sym_STAR, ACTIONS 331), (anon_sym_print, ACTIONS 333),
    (anon_sym_comptime, ACTIONS 335), (anon_sym_assert, ACTIONS 23),
    (anon_sym___comptime_assert, ACTIONS 25), (anon_sym_return, ACTIONS 27),
    (anon_sym_del, ACTIONS 29), (anon_sym_raise, ACTIONS 31), (anon_sym_pass, ACTIONS 33),
    (anon_sym_break, ACTIONS 35), (anon_sym_continue, ACTIONS 37), (anon_sym_match, ACTIONS 337),
    (anon_sym_async, ACTIONS 339), (anon_sym_def, ACTIONS 341), (anon_sym_LBRACK, ACTIONS 343),
    (anon_sym_LBRACE, ACTIONS 61), (anon_sym_STAR_STAR, ACTIONS 345),
    (anon_sym_global, ACTIONS 63), (anon_sym_nonlocal, ACTIONS 65), (anon_sym_exec, ACTIONS 347),
    (anon_sym_type, ACTIONS 349), (anon_sym_mut, ACTIONS 339), (anon_sym_out, ACTIONS 339),
    (anon_sym_DASH, ACTIONS 79), (anon_sym_PLUS, ACTIONS 79), (anon_sym_ref, ACTIONS 81),
    (anon_sym_var, ACTIONS 81), (anon_sym_not, ACTIONS 83), (anon_sym_TILDE, ACTIONS 79),
    (anon_sym_lambda, ACTIONS 85), (anon_sym_yield, ACTIONS 87), (sym_ellipsis, ACTIONS 89),
    (anon_sym___mlir_type, ACTIONS 91), (sym_integer, ACTIONS 93), (sym_float, ACTIONS 89),
    (anon_sym_await, ACTIONS 351), (sym_true, ACTIONS 93), (sym_false, ACTIONS 93),
    (sym_none, ACTIONS 93), (sym_comment, ACTIONS 3), (sym_line_continuation, ACTIONS 3),
    (sym__newline, ACTIONS 909), (sym__indent, ACTIONS 911), (sym_string_start, ACTIONS 97)]"

definition parse_table_1069 :: "(nat \<times> nat) list" where "parse_table_1069 = [
    (sym__simple_statements, STATE 5669), (sym_import_statement, STATE 11814),
    (sym_future_import_statement, STATE 11814), (sym_import_from_statement, STATE 11814),
    (sym_print_statement, STATE 11814), (sym_assert_statement, STATE 11814),
    (sym_comptime_assert_statement, STATE 11814), (sym_expression_statement, STATE 11814),
    (sym_tuple_expression, STATE 12425), (sym_named_expression, STATE 7969),
    (sym__named_expression_lhs, STATE 12752), (sym_return_statement, STATE 11814),
    (sym_delete_statement, STATE 11814), (sym_raise_statement, STATE 11814),
    (sym_pass_statement, STATE 11814), (sym_break_statement, STATE 11814),
    (sym_continue_statement, STATE 11814), (sym_global_statement, STATE 11814),
    (sym_nonlocal_statement, STATE 11814), (sym_exec_statement, STATE 11814),
    (sym_type_alias_statement, STATE 11814), (sym_parameterized_alias_statement, STATE 11814),
    (sym_pattern, STATE 8086), (sym_tuple_pattern, STATE 8101), (sym_list_pattern, STATE 8101),
    (sym_list_splat_pattern, STATE 6795), (sym_as_pattern, STATE 7969),
    (sym_expression, STATE 9623), (sym_primary_expression, STATE 7326),
    (sym_comptime_expression, STATE 7017), (sym_transfer_expression, STATE 7017),
    (sym_not_operator, STATE 7969), (sym_boolean_operator, STATE 7969),
    (sym_binary_operator, STATE 7017), (sym_unary_operator, STATE 7017),
    (sym_comparison_operator, STATE 7969), (sym_lambda, STATE 7969),
    (sym_assignment, STATE 12425), (sym_augmented_assignment, STATE 12425),
    (sym_pattern_list, STATE 8578), (sym_yield, STATE 12425), (sym_attribute, STATE 6796),
    (sym_subscript, STATE 6797), (sym_call, STATE 6768), (sym_type, STATE 10130),
    (sym_called_type, STATE 9093), (sym_function_type, STATE 9093), (sym_splat_type, STATE 9093),
    (sym_generic_type, STATE 8287), (sym_union_type, STATE 9093),
    (sym_intersection_type, STATE 9093), (sym__intersection_operand, STATE 12294),
    (sym_constrained_type, STATE 9093), (sym_member_type, STATE 8165),
    (sym_mlir_type, STATE 7017), (sym_list, STATE 7017), (sym_set, STATE 7017),
    (sym_tuple, STATE 7017), (sym_dictionary, STATE 7017), (sym_struct_literal, STATE 7017),
    (sym_list_comprehension, STATE 7017), (sym_dictionary_comprehension, STATE 7017),
    (sym_set_comprehension, STATE 7017), (sym_generator_expression, STATE 7017),
    (sym_parenthesized_expression, STATE 7017), (sym_conditional_expression, STATE 7969),
    (sym_concatenated_string, STATE 7017), (sym_string, STATE 6729), (sym_await, STATE 7017),
    (sym_identifier, ACTIONS 327), (anon_sym_import, ACTIONS 11), (anon_sym_from, ACTIONS 13),
    (anon_sym_LPAREN, ACTIONS 329), (anon_sym_STAR, ACTIONS 331), (anon_sym_print, ACTIONS 333),
    (anon_sym_comptime, ACTIONS 335), (anon_sym_assert, ACTIONS 23),
    (anon_sym___comptime_assert, ACTIONS 25), (anon_sym_return, ACTIONS 27),
    (anon_sym_del, ACTIONS 29), (anon_sym_raise, ACTIONS 31), (anon_sym_pass, ACTIONS 33),
    (anon_sym_break, ACTIONS 35), (anon_sym_continue, ACTIONS 37), (anon_sym_match, ACTIONS 337),
    (anon_sym_async, ACTIONS 339), (anon_sym_def, ACTIONS 341), (anon_sym_LBRACK, ACTIONS 343),
    (anon_sym_LBRACE, ACTIONS 61), (anon_sym_STAR_STAR, ACTIONS 345),
    (anon_sym_global, ACTIONS 63), (anon_sym_nonlocal, ACTIONS 65), (anon_sym_exec, ACTIONS 347),
    (anon_sym_type, ACTIONS 349), (anon_sym_mut, ACTIONS 339), (anon_sym_out, ACTIONS 339),
    (anon_sym_DASH, ACTIONS 79), (anon_sym_PLUS, ACTIONS 79), (anon_sym_ref, ACTIONS 81),
    (anon_sym_var, ACTIONS 81), (anon_sym_not, ACTIONS 83), (anon_sym_TILDE, ACTIONS 79),
    (anon_sym_lambda, ACTIONS 85), (anon_sym_yield, ACTIONS 87), (sym_ellipsis, ACTIONS 89),
    (anon_sym___mlir_type, ACTIONS 91), (sym_integer, ACTIONS 93), (sym_float, ACTIONS 89),
    (anon_sym_await, ACTIONS 351), (sym_true, ACTIONS 93), (sym_false, ACTIONS 93),
    (sym_none, ACTIONS 93), (sym_comment, ACTIONS 3), (sym_line_continuation, ACTIONS 3),
    (sym__newline, ACTIONS 913), (sym__indent, ACTIONS 915), (sym_string_start, ACTIONS 97)]"

definition parse_table_1070 :: "(nat \<times> nat) list" where "parse_table_1070 = [
    (sym__simple_statements, STATE 5671), (sym_import_statement, STATE 11814),
    (sym_future_import_statement, STATE 11814), (sym_import_from_statement, STATE 11814),
    (sym_print_statement, STATE 11814), (sym_assert_statement, STATE 11814),
    (sym_comptime_assert_statement, STATE 11814), (sym_expression_statement, STATE 11814),
    (sym_tuple_expression, STATE 12425), (sym_named_expression, STATE 7969),
    (sym__named_expression_lhs, STATE 12752), (sym_return_statement, STATE 11814),
    (sym_delete_statement, STATE 11814), (sym_raise_statement, STATE 11814),
    (sym_pass_statement, STATE 11814), (sym_break_statement, STATE 11814),
    (sym_continue_statement, STATE 11814), (sym_global_statement, STATE 11814),
    (sym_nonlocal_statement, STATE 11814), (sym_exec_statement, STATE 11814),
    (sym_type_alias_statement, STATE 11814), (sym_parameterized_alias_statement, STATE 11814),
    (sym_pattern, STATE 8086), (sym_tuple_pattern, STATE 8101), (sym_list_pattern, STATE 8101),
    (sym_list_splat_pattern, STATE 6795), (sym_as_pattern, STATE 7969),
    (sym_expression, STATE 9623), (sym_primary_expression, STATE 7326),
    (sym_comptime_expression, STATE 7017), (sym_transfer_expression, STATE 7017),
    (sym_not_operator, STATE 7969), (sym_boolean_operator, STATE 7969),
    (sym_binary_operator, STATE 7017), (sym_unary_operator, STATE 7017),
    (sym_comparison_operator, STATE 7969), (sym_lambda, STATE 7969),
    (sym_assignment, STATE 12425), (sym_augmented_assignment, STATE 12425),
    (sym_pattern_list, STATE 8578), (sym_yield, STATE 12425), (sym_attribute, STATE 6796),
    (sym_subscript, STATE 6797), (sym_call, STATE 6768), (sym_type, STATE 10130),
    (sym_called_type, STATE 9093), (sym_function_type, STATE 9093), (sym_splat_type, STATE 9093),
    (sym_generic_type, STATE 8287), (sym_union_type, STATE 9093),
    (sym_intersection_type, STATE 9093), (sym__intersection_operand, STATE 12294),
    (sym_constrained_type, STATE 9093), (sym_member_type, STATE 8165),
    (sym_mlir_type, STATE 7017), (sym_list, STATE 7017), (sym_set, STATE 7017),
    (sym_tuple, STATE 7017), (sym_dictionary, STATE 7017), (sym_struct_literal, STATE 7017),
    (sym_list_comprehension, STATE 7017), (sym_dictionary_comprehension, STATE 7017),
    (sym_set_comprehension, STATE 7017), (sym_generator_expression, STATE 7017),
    (sym_parenthesized_expression, STATE 7017), (sym_conditional_expression, STATE 7969),
    (sym_concatenated_string, STATE 7017), (sym_string, STATE 6729), (sym_await, STATE 7017),
    (sym_identifier, ACTIONS 327), (anon_sym_import, ACTIONS 11), (anon_sym_from, ACTIONS 13),
    (anon_sym_LPAREN, ACTIONS 329), (anon_sym_STAR, ACTIONS 331), (anon_sym_print, ACTIONS 333),
    (anon_sym_comptime, ACTIONS 335), (anon_sym_assert, ACTIONS 23),
    (anon_sym___comptime_assert, ACTIONS 25), (anon_sym_return, ACTIONS 27),
    (anon_sym_del, ACTIONS 29), (anon_sym_raise, ACTIONS 31), (anon_sym_pass, ACTIONS 33),
    (anon_sym_break, ACTIONS 35), (anon_sym_continue, ACTIONS 37), (anon_sym_match, ACTIONS 337),
    (anon_sym_async, ACTIONS 339), (anon_sym_def, ACTIONS 341), (anon_sym_LBRACK, ACTIONS 343),
    (anon_sym_LBRACE, ACTIONS 61), (anon_sym_STAR_STAR, ACTIONS 345),
    (anon_sym_global, ACTIONS 63), (anon_sym_nonlocal, ACTIONS 65), (anon_sym_exec, ACTIONS 347),
    (anon_sym_type, ACTIONS 349), (anon_sym_mut, ACTIONS 339), (anon_sym_out, ACTIONS 339),
    (anon_sym_DASH, ACTIONS 79), (anon_sym_PLUS, ACTIONS 79), (anon_sym_ref, ACTIONS 81),
    (anon_sym_var, ACTIONS 81), (anon_sym_not, ACTIONS 83), (anon_sym_TILDE, ACTIONS 79),
    (anon_sym_lambda, ACTIONS 85), (anon_sym_yield, ACTIONS 87), (sym_ellipsis, ACTIONS 89),
    (anon_sym___mlir_type, ACTIONS 91), (sym_integer, ACTIONS 93), (sym_float, ACTIONS 89),
    (anon_sym_await, ACTIONS 351), (sym_true, ACTIONS 93), (sym_false, ACTIONS 93),
    (sym_none, ACTIONS 93), (sym_comment, ACTIONS 3), (sym_line_continuation, ACTIONS 3),
    (sym__newline, ACTIONS 917), (sym__indent, ACTIONS 919), (sym_string_start, ACTIONS 97)]"

definition parse_table_1071 :: "(nat \<times> nat) list" where "parse_table_1071 = [
    (sym__simple_statements, STATE 6612), (sym_import_statement, STATE 12239),
    (sym_future_import_statement, STATE 12239), (sym_import_from_statement, STATE 12239),
    (sym_print_statement, STATE 12239), (sym_assert_statement, STATE 12239),
    (sym_comptime_assert_statement, STATE 12239), (sym_expression_statement, STATE 12239),
    (sym_tuple_expression, STATE 12425), (sym_named_expression, STATE 7969),
    (sym__named_expression_lhs, STATE 12752), (sym_return_statement, STATE 12239),
    (sym_delete_statement, STATE 12239), (sym_raise_statement, STATE 12239),
    (sym_pass_statement, STATE 12239), (sym_break_statement, STATE 12239),
    (sym_continue_statement, STATE 12239), (sym_global_statement, STATE 12239),
    (sym_nonlocal_statement, STATE 12239), (sym_exec_statement, STATE 12239),
    (sym_type_alias_statement, STATE 12239), (sym_parameterized_alias_statement, STATE 12239),
    (sym_pattern, STATE 8086), (sym_tuple_pattern, STATE 8101), (sym_list_pattern, STATE 8101),
    (sym_list_splat_pattern, STATE 6795), (sym_as_pattern, STATE 7969),
    (sym_expression, STATE 9623), (sym_primary_expression, STATE 7326),
    (sym_comptime_expression, STATE 7017), (sym_transfer_expression, STATE 7017),
    (sym_not_operator, STATE 7969), (sym_boolean_operator, STATE 7969),
    (sym_binary_operator, STATE 7017), (sym_unary_operator, STATE 7017),
    (sym_comparison_operator, STATE 7969), (sym_lambda, STATE 7969),
    (sym_assignment, STATE 12425), (sym_augmented_assignment, STATE 12425),
    (sym_pattern_list, STATE 8578), (sym_yield, STATE 12425), (sym_attribute, STATE 6796),
    (sym_subscript, STATE 6797), (sym_call, STATE 6768), (sym_type, STATE 10130),
    (sym_called_type, STATE 9093), (sym_function_type, STATE 9093), (sym_splat_type, STATE 9093),
    (sym_generic_type, STATE 8287), (sym_union_type, STATE 9093),
    (sym_intersection_type, STATE 9093), (sym__intersection_operand, STATE 12294),
    (sym_constrained_type, STATE 9093), (sym_member_type, STATE 8165),
    (sym_mlir_type, STATE 7017), (sym_list, STATE 7017), (sym_set, STATE 7017),
    (sym_tuple, STATE 7017), (sym_dictionary, STATE 7017), (sym_struct_literal, STATE 7017),
    (sym_list_comprehension, STATE 7017), (sym_dictionary_comprehension, STATE 7017),
    (sym_set_comprehension, STATE 7017), (sym_generator_expression, STATE 7017),
    (sym_parenthesized_expression, STATE 7017), (sym_conditional_expression, STATE 7969),
    (sym_concatenated_string, STATE 7017), (sym_string, STATE 6729), (sym_await, STATE 7017),
    (sym_identifier, ACTIONS 327), (anon_sym_import, ACTIONS 11), (anon_sym_from, ACTIONS 13),
    (anon_sym_LPAREN, ACTIONS 329), (anon_sym_STAR, ACTIONS 331), (anon_sym_print, ACTIONS 333),
    (anon_sym_comptime, ACTIONS 335), (anon_sym_assert, ACTIONS 23),
    (anon_sym___comptime_assert, ACTIONS 25), (anon_sym_return, ACTIONS 27),
    (anon_sym_del, ACTIONS 29), (anon_sym_raise, ACTIONS 31), (anon_sym_pass, ACTIONS 33),
    (anon_sym_break, ACTIONS 35), (anon_sym_continue, ACTIONS 37), (anon_sym_match, ACTIONS 337),
    (anon_sym_async, ACTIONS 339), (anon_sym_def, ACTIONS 341), (anon_sym_LBRACK, ACTIONS 343),
    (anon_sym_LBRACE, ACTIONS 61), (anon_sym_STAR_STAR, ACTIONS 345),
    (anon_sym_global, ACTIONS 63), (anon_sym_nonlocal, ACTIONS 65), (anon_sym_exec, ACTIONS 347),
    (anon_sym_type, ACTIONS 349), (anon_sym_mut, ACTIONS 339), (anon_sym_out, ACTIONS 339),
    (anon_sym_DASH, ACTIONS 79), (anon_sym_PLUS, ACTIONS 79), (anon_sym_ref, ACTIONS 81),
    (anon_sym_var, ACTIONS 81), (anon_sym_not, ACTIONS 83), (anon_sym_TILDE, ACTIONS 79),
    (anon_sym_lambda, ACTIONS 85), (anon_sym_yield, ACTIONS 87), (sym_ellipsis, ACTIONS 89),
    (anon_sym___mlir_type, ACTIONS 91), (sym_integer, ACTIONS 93), (sym_float, ACTIONS 89),
    (anon_sym_await, ACTIONS 351), (sym_true, ACTIONS 93), (sym_false, ACTIONS 93),
    (sym_none, ACTIONS 93), (sym_comment, ACTIONS 3), (sym_line_continuation, ACTIONS 3),
    (sym__newline, ACTIONS 921), (sym__indent, ACTIONS 923), (sym_string_start, ACTIONS 97)]"

definition parse_table_1072 :: "(nat \<times> nat) list" where "parse_table_1072 = [
    (sym__simple_statements, STATE 5679), (sym_import_statement, STATE 11814),
    (sym_future_import_statement, STATE 11814), (sym_import_from_statement, STATE 11814),
    (sym_print_statement, STATE 11814), (sym_assert_statement, STATE 11814),
    (sym_comptime_assert_statement, STATE 11814), (sym_expression_statement, STATE 11814),
    (sym_tuple_expression, STATE 12425), (sym_named_expression, STATE 7969),
    (sym__named_expression_lhs, STATE 12752), (sym_return_statement, STATE 11814),
    (sym_delete_statement, STATE 11814), (sym_raise_statement, STATE 11814),
    (sym_pass_statement, STATE 11814), (sym_break_statement, STATE 11814),
    (sym_continue_statement, STATE 11814), (sym_global_statement, STATE 11814),
    (sym_nonlocal_statement, STATE 11814), (sym_exec_statement, STATE 11814),
    (sym_type_alias_statement, STATE 11814), (sym_parameterized_alias_statement, STATE 11814),
    (sym_pattern, STATE 8086), (sym_tuple_pattern, STATE 8101), (sym_list_pattern, STATE 8101),
    (sym_list_splat_pattern, STATE 6795), (sym_as_pattern, STATE 7969),
    (sym_expression, STATE 9623), (sym_primary_expression, STATE 7326),
    (sym_comptime_expression, STATE 7017), (sym_transfer_expression, STATE 7017),
    (sym_not_operator, STATE 7969), (sym_boolean_operator, STATE 7969),
    (sym_binary_operator, STATE 7017), (sym_unary_operator, STATE 7017),
    (sym_comparison_operator, STATE 7969), (sym_lambda, STATE 7969),
    (sym_assignment, STATE 12425), (sym_augmented_assignment, STATE 12425),
    (sym_pattern_list, STATE 8578), (sym_yield, STATE 12425), (sym_attribute, STATE 6796),
    (sym_subscript, STATE 6797), (sym_call, STATE 6768), (sym_type, STATE 10130),
    (sym_called_type, STATE 9093), (sym_function_type, STATE 9093), (sym_splat_type, STATE 9093),
    (sym_generic_type, STATE 8287), (sym_union_type, STATE 9093),
    (sym_intersection_type, STATE 9093), (sym__intersection_operand, STATE 12294),
    (sym_constrained_type, STATE 9093), (sym_member_type, STATE 8165),
    (sym_mlir_type, STATE 7017), (sym_list, STATE 7017), (sym_set, STATE 7017),
    (sym_tuple, STATE 7017), (sym_dictionary, STATE 7017), (sym_struct_literal, STATE 7017),
    (sym_list_comprehension, STATE 7017), (sym_dictionary_comprehension, STATE 7017),
    (sym_set_comprehension, STATE 7017), (sym_generator_expression, STATE 7017),
    (sym_parenthesized_expression, STATE 7017), (sym_conditional_expression, STATE 7969),
    (sym_concatenated_string, STATE 7017), (sym_string, STATE 6729), (sym_await, STATE 7017),
    (sym_identifier, ACTIONS 327), (anon_sym_import, ACTIONS 11), (anon_sym_from, ACTIONS 13),
    (anon_sym_LPAREN, ACTIONS 329), (anon_sym_STAR, ACTIONS 331), (anon_sym_print, ACTIONS 333),
    (anon_sym_comptime, ACTIONS 335), (anon_sym_assert, ACTIONS 23),
    (anon_sym___comptime_assert, ACTIONS 25), (anon_sym_return, ACTIONS 27),
    (anon_sym_del, ACTIONS 29), (anon_sym_raise, ACTIONS 31), (anon_sym_pass, ACTIONS 33),
    (anon_sym_break, ACTIONS 35), (anon_sym_continue, ACTIONS 37), (anon_sym_match, ACTIONS 337),
    (anon_sym_async, ACTIONS 339), (anon_sym_def, ACTIONS 341), (anon_sym_LBRACK, ACTIONS 343),
    (anon_sym_LBRACE, ACTIONS 61), (anon_sym_STAR_STAR, ACTIONS 345),
    (anon_sym_global, ACTIONS 63), (anon_sym_nonlocal, ACTIONS 65), (anon_sym_exec, ACTIONS 347),
    (anon_sym_type, ACTIONS 349), (anon_sym_mut, ACTIONS 339), (anon_sym_out, ACTIONS 339),
    (anon_sym_DASH, ACTIONS 79), (anon_sym_PLUS, ACTIONS 79), (anon_sym_ref, ACTIONS 81),
    (anon_sym_var, ACTIONS 81), (anon_sym_not, ACTIONS 83), (anon_sym_TILDE, ACTIONS 79),
    (anon_sym_lambda, ACTIONS 85), (anon_sym_yield, ACTIONS 87), (sym_ellipsis, ACTIONS 89),
    (anon_sym___mlir_type, ACTIONS 91), (sym_integer, ACTIONS 93), (sym_float, ACTIONS 89),
    (anon_sym_await, ACTIONS 351), (sym_true, ACTIONS 93), (sym_false, ACTIONS 93),
    (sym_none, ACTIONS 93), (sym_comment, ACTIONS 3), (sym_line_continuation, ACTIONS 3),
    (sym__newline, ACTIONS 925), (sym__indent, ACTIONS 927), (sym_string_start, ACTIONS 97)]"

definition parse_table_1073 :: "(nat \<times> nat) list" where "parse_table_1073 = [
    (sym__simple_statements, STATE 6510), (sym_import_statement, STATE 11814),
    (sym_future_import_statement, STATE 11814), (sym_import_from_statement, STATE 11814),
    (sym_print_statement, STATE 11814), (sym_assert_statement, STATE 11814),
    (sym_comptime_assert_statement, STATE 11814), (sym_expression_statement, STATE 11814),
    (sym_tuple_expression, STATE 12425), (sym_named_expression, STATE 7969),
    (sym__named_expression_lhs, STATE 12752), (sym_return_statement, STATE 11814),
    (sym_delete_statement, STATE 11814), (sym_raise_statement, STATE 11814),
    (sym_pass_statement, STATE 11814), (sym_break_statement, STATE 11814),
    (sym_continue_statement, STATE 11814), (sym_global_statement, STATE 11814),
    (sym_nonlocal_statement, STATE 11814), (sym_exec_statement, STATE 11814),
    (sym_type_alias_statement, STATE 11814), (sym_parameterized_alias_statement, STATE 11814),
    (sym_pattern, STATE 8086), (sym_tuple_pattern, STATE 8101), (sym_list_pattern, STATE 8101),
    (sym_list_splat_pattern, STATE 6795), (sym_as_pattern, STATE 7969),
    (sym_expression, STATE 9623), (sym_primary_expression, STATE 7326),
    (sym_comptime_expression, STATE 7017), (sym_transfer_expression, STATE 7017),
    (sym_not_operator, STATE 7969), (sym_boolean_operator, STATE 7969),
    (sym_binary_operator, STATE 7017), (sym_unary_operator, STATE 7017),
    (sym_comparison_operator, STATE 7969), (sym_lambda, STATE 7969),
    (sym_assignment, STATE 12425), (sym_augmented_assignment, STATE 12425),
    (sym_pattern_list, STATE 8578), (sym_yield, STATE 12425), (sym_attribute, STATE 6796),
    (sym_subscript, STATE 6797), (sym_call, STATE 6768), (sym_type, STATE 10130),
    (sym_called_type, STATE 9093), (sym_function_type, STATE 9093), (sym_splat_type, STATE 9093),
    (sym_generic_type, STATE 8287), (sym_union_type, STATE 9093),
    (sym_intersection_type, STATE 9093), (sym__intersection_operand, STATE 12294),
    (sym_constrained_type, STATE 9093), (sym_member_type, STATE 8165),
    (sym_mlir_type, STATE 7017), (sym_list, STATE 7017), (sym_set, STATE 7017),
    (sym_tuple, STATE 7017), (sym_dictionary, STATE 7017), (sym_struct_literal, STATE 7017),
    (sym_list_comprehension, STATE 7017), (sym_dictionary_comprehension, STATE 7017),
    (sym_set_comprehension, STATE 7017), (sym_generator_expression, STATE 7017),
    (sym_parenthesized_expression, STATE 7017), (sym_conditional_expression, STATE 7969),
    (sym_concatenated_string, STATE 7017), (sym_string, STATE 6729), (sym_await, STATE 7017),
    (sym_identifier, ACTIONS 327), (anon_sym_import, ACTIONS 11), (anon_sym_from, ACTIONS 13),
    (anon_sym_LPAREN, ACTIONS 329), (anon_sym_STAR, ACTIONS 331), (anon_sym_print, ACTIONS 333),
    (anon_sym_comptime, ACTIONS 335), (anon_sym_assert, ACTIONS 23),
    (anon_sym___comptime_assert, ACTIONS 25), (anon_sym_return, ACTIONS 27),
    (anon_sym_del, ACTIONS 29), (anon_sym_raise, ACTIONS 31), (anon_sym_pass, ACTIONS 33),
    (anon_sym_break, ACTIONS 35), (anon_sym_continue, ACTIONS 37), (anon_sym_match, ACTIONS 337),
    (anon_sym_async, ACTIONS 339), (anon_sym_def, ACTIONS 341), (anon_sym_LBRACK, ACTIONS 343),
    (anon_sym_LBRACE, ACTIONS 61), (anon_sym_STAR_STAR, ACTIONS 345),
    (anon_sym_global, ACTIONS 63), (anon_sym_nonlocal, ACTIONS 65), (anon_sym_exec, ACTIONS 347),
    (anon_sym_type, ACTIONS 349), (anon_sym_mut, ACTIONS 339), (anon_sym_out, ACTIONS 339),
    (anon_sym_DASH, ACTIONS 79), (anon_sym_PLUS, ACTIONS 79), (anon_sym_ref, ACTIONS 81),
    (anon_sym_var, ACTIONS 81), (anon_sym_not, ACTIONS 83), (anon_sym_TILDE, ACTIONS 79),
    (anon_sym_lambda, ACTIONS 85), (anon_sym_yield, ACTIONS 87), (sym_ellipsis, ACTIONS 89),
    (anon_sym___mlir_type, ACTIONS 91), (sym_integer, ACTIONS 93), (sym_float, ACTIONS 89),
    (anon_sym_await, ACTIONS 351), (sym_true, ACTIONS 93), (sym_false, ACTIONS 93),
    (sym_none, ACTIONS 93), (sym_comment, ACTIONS 3), (sym_line_continuation, ACTIONS 3),
    (sym__newline, ACTIONS 929), (sym__indent, ACTIONS 931), (sym_string_start, ACTIONS 97)]"

definition parse_table_1074 :: "(nat \<times> nat) list" where "parse_table_1074 = [
    (sym__simple_statements, STATE 6059), (sym_import_statement, STATE 12239),
    (sym_future_import_statement, STATE 12239), (sym_import_from_statement, STATE 12239),
    (sym_print_statement, STATE 12239), (sym_assert_statement, STATE 12239),
    (sym_comptime_assert_statement, STATE 12239), (sym_expression_statement, STATE 12239),
    (sym_tuple_expression, STATE 12425), (sym_named_expression, STATE 7969),
    (sym__named_expression_lhs, STATE 12752), (sym_return_statement, STATE 12239),
    (sym_delete_statement, STATE 12239), (sym_raise_statement, STATE 12239),
    (sym_pass_statement, STATE 12239), (sym_break_statement, STATE 12239),
    (sym_continue_statement, STATE 12239), (sym_global_statement, STATE 12239),
    (sym_nonlocal_statement, STATE 12239), (sym_exec_statement, STATE 12239),
    (sym_type_alias_statement, STATE 12239), (sym_parameterized_alias_statement, STATE 12239),
    (sym_pattern, STATE 8086), (sym_tuple_pattern, STATE 8101), (sym_list_pattern, STATE 8101),
    (sym_list_splat_pattern, STATE 6795), (sym_as_pattern, STATE 7969),
    (sym_expression, STATE 9623), (sym_primary_expression, STATE 7326),
    (sym_comptime_expression, STATE 7017), (sym_transfer_expression, STATE 7017),
    (sym_not_operator, STATE 7969), (sym_boolean_operator, STATE 7969),
    (sym_binary_operator, STATE 7017), (sym_unary_operator, STATE 7017),
    (sym_comparison_operator, STATE 7969), (sym_lambda, STATE 7969),
    (sym_assignment, STATE 12425), (sym_augmented_assignment, STATE 12425),
    (sym_pattern_list, STATE 8578), (sym_yield, STATE 12425), (sym_attribute, STATE 6796),
    (sym_subscript, STATE 6797), (sym_call, STATE 6768), (sym_type, STATE 10130),
    (sym_called_type, STATE 9093), (sym_function_type, STATE 9093), (sym_splat_type, STATE 9093),
    (sym_generic_type, STATE 8287), (sym_union_type, STATE 9093),
    (sym_intersection_type, STATE 9093), (sym__intersection_operand, STATE 12294),
    (sym_constrained_type, STATE 9093), (sym_member_type, STATE 8165),
    (sym_mlir_type, STATE 7017), (sym_list, STATE 7017), (sym_set, STATE 7017),
    (sym_tuple, STATE 7017), (sym_dictionary, STATE 7017), (sym_struct_literal, STATE 7017),
    (sym_list_comprehension, STATE 7017), (sym_dictionary_comprehension, STATE 7017),
    (sym_set_comprehension, STATE 7017), (sym_generator_expression, STATE 7017),
    (sym_parenthesized_expression, STATE 7017), (sym_conditional_expression, STATE 7969),
    (sym_concatenated_string, STATE 7017), (sym_string, STATE 6729), (sym_await, STATE 7017),
    (sym_identifier, ACTIONS 327), (anon_sym_import, ACTIONS 11), (anon_sym_from, ACTIONS 13),
    (anon_sym_LPAREN, ACTIONS 329), (anon_sym_STAR, ACTIONS 331), (anon_sym_print, ACTIONS 333),
    (anon_sym_comptime, ACTIONS 335), (anon_sym_assert, ACTIONS 23),
    (anon_sym___comptime_assert, ACTIONS 25), (anon_sym_return, ACTIONS 27),
    (anon_sym_del, ACTIONS 29), (anon_sym_raise, ACTIONS 31), (anon_sym_pass, ACTIONS 33),
    (anon_sym_break, ACTIONS 35), (anon_sym_continue, ACTIONS 37), (anon_sym_match, ACTIONS 337),
    (anon_sym_async, ACTIONS 339), (anon_sym_def, ACTIONS 341), (anon_sym_LBRACK, ACTIONS 343),
    (anon_sym_LBRACE, ACTIONS 61), (anon_sym_STAR_STAR, ACTIONS 345),
    (anon_sym_global, ACTIONS 63), (anon_sym_nonlocal, ACTIONS 65), (anon_sym_exec, ACTIONS 347),
    (anon_sym_type, ACTIONS 349), (anon_sym_mut, ACTIONS 339), (anon_sym_out, ACTIONS 339),
    (anon_sym_DASH, ACTIONS 79), (anon_sym_PLUS, ACTIONS 79), (anon_sym_ref, ACTIONS 81),
    (anon_sym_var, ACTIONS 81), (anon_sym_not, ACTIONS 83), (anon_sym_TILDE, ACTIONS 79),
    (anon_sym_lambda, ACTIONS 85), (anon_sym_yield, ACTIONS 87), (sym_ellipsis, ACTIONS 89),
    (anon_sym___mlir_type, ACTIONS 91), (sym_integer, ACTIONS 93), (sym_float, ACTIONS 89),
    (anon_sym_await, ACTIONS 351), (sym_true, ACTIONS 93), (sym_false, ACTIONS 93),
    (sym_none, ACTIONS 93), (sym_comment, ACTIONS 3), (sym_line_continuation, ACTIONS 3),
    (sym__newline, ACTIONS 933), (sym__indent, ACTIONS 935), (sym_string_start, ACTIONS 97)]"

definition parse_table_1075 :: "(nat \<times> nat) list" where "parse_table_1075 = [
    (sym__simple_statements, STATE 6514), (sym_import_statement, STATE 11814),
    (sym_future_import_statement, STATE 11814), (sym_import_from_statement, STATE 11814),
    (sym_print_statement, STATE 11814), (sym_assert_statement, STATE 11814),
    (sym_comptime_assert_statement, STATE 11814), (sym_expression_statement, STATE 11814),
    (sym_tuple_expression, STATE 12425), (sym_named_expression, STATE 7969),
    (sym__named_expression_lhs, STATE 12752), (sym_return_statement, STATE 11814),
    (sym_delete_statement, STATE 11814), (sym_raise_statement, STATE 11814),
    (sym_pass_statement, STATE 11814), (sym_break_statement, STATE 11814),
    (sym_continue_statement, STATE 11814), (sym_global_statement, STATE 11814),
    (sym_nonlocal_statement, STATE 11814), (sym_exec_statement, STATE 11814),
    (sym_type_alias_statement, STATE 11814), (sym_parameterized_alias_statement, STATE 11814),
    (sym_pattern, STATE 8086), (sym_tuple_pattern, STATE 8101), (sym_list_pattern, STATE 8101),
    (sym_list_splat_pattern, STATE 6795), (sym_as_pattern, STATE 7969),
    (sym_expression, STATE 9623), (sym_primary_expression, STATE 7326),
    (sym_comptime_expression, STATE 7017), (sym_transfer_expression, STATE 7017),
    (sym_not_operator, STATE 7969), (sym_boolean_operator, STATE 7969),
    (sym_binary_operator, STATE 7017), (sym_unary_operator, STATE 7017),
    (sym_comparison_operator, STATE 7969), (sym_lambda, STATE 7969),
    (sym_assignment, STATE 12425), (sym_augmented_assignment, STATE 12425),
    (sym_pattern_list, STATE 8578), (sym_yield, STATE 12425), (sym_attribute, STATE 6796),
    (sym_subscript, STATE 6797), (sym_call, STATE 6768), (sym_type, STATE 10130),
    (sym_called_type, STATE 9093), (sym_function_type, STATE 9093), (sym_splat_type, STATE 9093),
    (sym_generic_type, STATE 8287), (sym_union_type, STATE 9093),
    (sym_intersection_type, STATE 9093), (sym__intersection_operand, STATE 12294),
    (sym_constrained_type, STATE 9093), (sym_member_type, STATE 8165),
    (sym_mlir_type, STATE 7017), (sym_list, STATE 7017), (sym_set, STATE 7017),
    (sym_tuple, STATE 7017), (sym_dictionary, STATE 7017), (sym_struct_literal, STATE 7017),
    (sym_list_comprehension, STATE 7017), (sym_dictionary_comprehension, STATE 7017),
    (sym_set_comprehension, STATE 7017), (sym_generator_expression, STATE 7017),
    (sym_parenthesized_expression, STATE 7017), (sym_conditional_expression, STATE 7969),
    (sym_concatenated_string, STATE 7017), (sym_string, STATE 6729), (sym_await, STATE 7017),
    (sym_identifier, ACTIONS 327), (anon_sym_import, ACTIONS 11), (anon_sym_from, ACTIONS 13),
    (anon_sym_LPAREN, ACTIONS 329), (anon_sym_STAR, ACTIONS 331), (anon_sym_print, ACTIONS 333),
    (anon_sym_comptime, ACTIONS 335), (anon_sym_assert, ACTIONS 23),
    (anon_sym___comptime_assert, ACTIONS 25), (anon_sym_return, ACTIONS 27),
    (anon_sym_del, ACTIONS 29), (anon_sym_raise, ACTIONS 31), (anon_sym_pass, ACTIONS 33),
    (anon_sym_break, ACTIONS 35), (anon_sym_continue, ACTIONS 37), (anon_sym_match, ACTIONS 337),
    (anon_sym_async, ACTIONS 339), (anon_sym_def, ACTIONS 341), (anon_sym_LBRACK, ACTIONS 343),
    (anon_sym_LBRACE, ACTIONS 61), (anon_sym_STAR_STAR, ACTIONS 345),
    (anon_sym_global, ACTIONS 63), (anon_sym_nonlocal, ACTIONS 65), (anon_sym_exec, ACTIONS 347),
    (anon_sym_type, ACTIONS 349), (anon_sym_mut, ACTIONS 339), (anon_sym_out, ACTIONS 339),
    (anon_sym_DASH, ACTIONS 79), (anon_sym_PLUS, ACTIONS 79), (anon_sym_ref, ACTIONS 81),
    (anon_sym_var, ACTIONS 81), (anon_sym_not, ACTIONS 83), (anon_sym_TILDE, ACTIONS 79),
    (anon_sym_lambda, ACTIONS 85), (anon_sym_yield, ACTIONS 87), (sym_ellipsis, ACTIONS 89),
    (anon_sym___mlir_type, ACTIONS 91), (sym_integer, ACTIONS 93), (sym_float, ACTIONS 89),
    (anon_sym_await, ACTIONS 351), (sym_true, ACTIONS 93), (sym_false, ACTIONS 93),
    (sym_none, ACTIONS 93), (sym_comment, ACTIONS 3), (sym_line_continuation, ACTIONS 3),
    (sym__newline, ACTIONS 937), (sym__indent, ACTIONS 939), (sym_string_start, ACTIONS 97)]"

definition parse_table_1076 :: "(nat \<times> nat) list" where "parse_table_1076 = [
    (sym__simple_statements, STATE 6517), (sym_import_statement, STATE 11814),
    (sym_future_import_statement, STATE 11814), (sym_import_from_statement, STATE 11814),
    (sym_print_statement, STATE 11814), (sym_assert_statement, STATE 11814),
    (sym_comptime_assert_statement, STATE 11814), (sym_expression_statement, STATE 11814),
    (sym_tuple_expression, STATE 12425), (sym_named_expression, STATE 7969),
    (sym__named_expression_lhs, STATE 12752), (sym_return_statement, STATE 11814),
    (sym_delete_statement, STATE 11814), (sym_raise_statement, STATE 11814),
    (sym_pass_statement, STATE 11814), (sym_break_statement, STATE 11814),
    (sym_continue_statement, STATE 11814), (sym_global_statement, STATE 11814),
    (sym_nonlocal_statement, STATE 11814), (sym_exec_statement, STATE 11814),
    (sym_type_alias_statement, STATE 11814), (sym_parameterized_alias_statement, STATE 11814),
    (sym_pattern, STATE 8086), (sym_tuple_pattern, STATE 8101), (sym_list_pattern, STATE 8101),
    (sym_list_splat_pattern, STATE 6795), (sym_as_pattern, STATE 7969),
    (sym_expression, STATE 9623), (sym_primary_expression, STATE 7326),
    (sym_comptime_expression, STATE 7017), (sym_transfer_expression, STATE 7017),
    (sym_not_operator, STATE 7969), (sym_boolean_operator, STATE 7969),
    (sym_binary_operator, STATE 7017), (sym_unary_operator, STATE 7017),
    (sym_comparison_operator, STATE 7969), (sym_lambda, STATE 7969),
    (sym_assignment, STATE 12425), (sym_augmented_assignment, STATE 12425),
    (sym_pattern_list, STATE 8578), (sym_yield, STATE 12425), (sym_attribute, STATE 6796),
    (sym_subscript, STATE 6797), (sym_call, STATE 6768), (sym_type, STATE 10130),
    (sym_called_type, STATE 9093), (sym_function_type, STATE 9093), (sym_splat_type, STATE 9093),
    (sym_generic_type, STATE 8287), (sym_union_type, STATE 9093),
    (sym_intersection_type, STATE 9093), (sym__intersection_operand, STATE 12294),
    (sym_constrained_type, STATE 9093), (sym_member_type, STATE 8165),
    (sym_mlir_type, STATE 7017), (sym_list, STATE 7017), (sym_set, STATE 7017),
    (sym_tuple, STATE 7017), (sym_dictionary, STATE 7017), (sym_struct_literal, STATE 7017),
    (sym_list_comprehension, STATE 7017), (sym_dictionary_comprehension, STATE 7017),
    (sym_set_comprehension, STATE 7017), (sym_generator_expression, STATE 7017),
    (sym_parenthesized_expression, STATE 7017), (sym_conditional_expression, STATE 7969),
    (sym_concatenated_string, STATE 7017), (sym_string, STATE 6729), (sym_await, STATE 7017),
    (sym_identifier, ACTIONS 327), (anon_sym_import, ACTIONS 11), (anon_sym_from, ACTIONS 13),
    (anon_sym_LPAREN, ACTIONS 329), (anon_sym_STAR, ACTIONS 331), (anon_sym_print, ACTIONS 333),
    (anon_sym_comptime, ACTIONS 335), (anon_sym_assert, ACTIONS 23),
    (anon_sym___comptime_assert, ACTIONS 25), (anon_sym_return, ACTIONS 27),
    (anon_sym_del, ACTIONS 29), (anon_sym_raise, ACTIONS 31), (anon_sym_pass, ACTIONS 33),
    (anon_sym_break, ACTIONS 35), (anon_sym_continue, ACTIONS 37), (anon_sym_match, ACTIONS 337),
    (anon_sym_async, ACTIONS 339), (anon_sym_def, ACTIONS 341), (anon_sym_LBRACK, ACTIONS 343),
    (anon_sym_LBRACE, ACTIONS 61), (anon_sym_STAR_STAR, ACTIONS 345),
    (anon_sym_global, ACTIONS 63), (anon_sym_nonlocal, ACTIONS 65), (anon_sym_exec, ACTIONS 347),
    (anon_sym_type, ACTIONS 349), (anon_sym_mut, ACTIONS 339), (anon_sym_out, ACTIONS 339),
    (anon_sym_DASH, ACTIONS 79), (anon_sym_PLUS, ACTIONS 79), (anon_sym_ref, ACTIONS 81),
    (anon_sym_var, ACTIONS 81), (anon_sym_not, ACTIONS 83), (anon_sym_TILDE, ACTIONS 79),
    (anon_sym_lambda, ACTIONS 85), (anon_sym_yield, ACTIONS 87), (sym_ellipsis, ACTIONS 89),
    (anon_sym___mlir_type, ACTIONS 91), (sym_integer, ACTIONS 93), (sym_float, ACTIONS 89),
    (anon_sym_await, ACTIONS 351), (sym_true, ACTIONS 93), (sym_false, ACTIONS 93),
    (sym_none, ACTIONS 93), (sym_comment, ACTIONS 3), (sym_line_continuation, ACTIONS 3),
    (sym__newline, ACTIONS 941), (sym__indent, ACTIONS 943), (sym_string_start, ACTIONS 97)]"

definition parse_table_1077 :: "(nat \<times> nat) list" where "parse_table_1077 = [
    (sym__simple_statements, STATE 5682), (sym_import_statement, STATE 11814),
    (sym_future_import_statement, STATE 11814), (sym_import_from_statement, STATE 11814),
    (sym_print_statement, STATE 11814), (sym_assert_statement, STATE 11814),
    (sym_comptime_assert_statement, STATE 11814), (sym_expression_statement, STATE 11814),
    (sym_tuple_expression, STATE 12425), (sym_named_expression, STATE 7969),
    (sym__named_expression_lhs, STATE 12752), (sym_return_statement, STATE 11814),
    (sym_delete_statement, STATE 11814), (sym_raise_statement, STATE 11814),
    (sym_pass_statement, STATE 11814), (sym_break_statement, STATE 11814),
    (sym_continue_statement, STATE 11814), (sym_global_statement, STATE 11814),
    (sym_nonlocal_statement, STATE 11814), (sym_exec_statement, STATE 11814),
    (sym_type_alias_statement, STATE 11814), (sym_parameterized_alias_statement, STATE 11814),
    (sym_pattern, STATE 8086), (sym_tuple_pattern, STATE 8101), (sym_list_pattern, STATE 8101),
    (sym_list_splat_pattern, STATE 6795), (sym_as_pattern, STATE 7969),
    (sym_expression, STATE 9623), (sym_primary_expression, STATE 7326),
    (sym_comptime_expression, STATE 7017), (sym_transfer_expression, STATE 7017),
    (sym_not_operator, STATE 7969), (sym_boolean_operator, STATE 7969),
    (sym_binary_operator, STATE 7017), (sym_unary_operator, STATE 7017),
    (sym_comparison_operator, STATE 7969), (sym_lambda, STATE 7969),
    (sym_assignment, STATE 12425), (sym_augmented_assignment, STATE 12425),
    (sym_pattern_list, STATE 8578), (sym_yield, STATE 12425), (sym_attribute, STATE 6796),
    (sym_subscript, STATE 6797), (sym_call, STATE 6768), (sym_type, STATE 10130),
    (sym_called_type, STATE 9093), (sym_function_type, STATE 9093), (sym_splat_type, STATE 9093),
    (sym_generic_type, STATE 8287), (sym_union_type, STATE 9093),
    (sym_intersection_type, STATE 9093), (sym__intersection_operand, STATE 12294),
    (sym_constrained_type, STATE 9093), (sym_member_type, STATE 8165),
    (sym_mlir_type, STATE 7017), (sym_list, STATE 7017), (sym_set, STATE 7017),
    (sym_tuple, STATE 7017), (sym_dictionary, STATE 7017), (sym_struct_literal, STATE 7017),
    (sym_list_comprehension, STATE 7017), (sym_dictionary_comprehension, STATE 7017),
    (sym_set_comprehension, STATE 7017), (sym_generator_expression, STATE 7017),
    (sym_parenthesized_expression, STATE 7017), (sym_conditional_expression, STATE 7969),
    (sym_concatenated_string, STATE 7017), (sym_string, STATE 6729), (sym_await, STATE 7017),
    (sym_identifier, ACTIONS 327), (anon_sym_import, ACTIONS 11), (anon_sym_from, ACTIONS 13),
    (anon_sym_LPAREN, ACTIONS 329), (anon_sym_STAR, ACTIONS 331), (anon_sym_print, ACTIONS 333),
    (anon_sym_comptime, ACTIONS 335), (anon_sym_assert, ACTIONS 23),
    (anon_sym___comptime_assert, ACTIONS 25), (anon_sym_return, ACTIONS 27),
    (anon_sym_del, ACTIONS 29), (anon_sym_raise, ACTIONS 31), (anon_sym_pass, ACTIONS 33),
    (anon_sym_break, ACTIONS 35), (anon_sym_continue, ACTIONS 37), (anon_sym_match, ACTIONS 337),
    (anon_sym_async, ACTIONS 339), (anon_sym_def, ACTIONS 341), (anon_sym_LBRACK, ACTIONS 343),
    (anon_sym_LBRACE, ACTIONS 61), (anon_sym_STAR_STAR, ACTIONS 345),
    (anon_sym_global, ACTIONS 63), (anon_sym_nonlocal, ACTIONS 65), (anon_sym_exec, ACTIONS 347),
    (anon_sym_type, ACTIONS 349), (anon_sym_mut, ACTIONS 339), (anon_sym_out, ACTIONS 339),
    (anon_sym_DASH, ACTIONS 79), (anon_sym_PLUS, ACTIONS 79), (anon_sym_ref, ACTIONS 81),
    (anon_sym_var, ACTIONS 81), (anon_sym_not, ACTIONS 83), (anon_sym_TILDE, ACTIONS 79),
    (anon_sym_lambda, ACTIONS 85), (anon_sym_yield, ACTIONS 87), (sym_ellipsis, ACTIONS 89),
    (anon_sym___mlir_type, ACTIONS 91), (sym_integer, ACTIONS 93), (sym_float, ACTIONS 89),
    (anon_sym_await, ACTIONS 351), (sym_true, ACTIONS 93), (sym_false, ACTIONS 93),
    (sym_none, ACTIONS 93), (sym_comment, ACTIONS 3), (sym_line_continuation, ACTIONS 3),
    (sym__newline, ACTIONS 945), (sym__indent, ACTIONS 947), (sym_string_start, ACTIONS 97)]"

definition parse_table_1078 :: "(nat \<times> nat) list" where "parse_table_1078 = [
    (sym__simple_statements, STATE 6526), (sym_import_statement, STATE 11814),
    (sym_future_import_statement, STATE 11814), (sym_import_from_statement, STATE 11814),
    (sym_print_statement, STATE 11814), (sym_assert_statement, STATE 11814),
    (sym_comptime_assert_statement, STATE 11814), (sym_expression_statement, STATE 11814),
    (sym_tuple_expression, STATE 12425), (sym_named_expression, STATE 7969),
    (sym__named_expression_lhs, STATE 12752), (sym_return_statement, STATE 11814),
    (sym_delete_statement, STATE 11814), (sym_raise_statement, STATE 11814),
    (sym_pass_statement, STATE 11814), (sym_break_statement, STATE 11814),
    (sym_continue_statement, STATE 11814), (sym_global_statement, STATE 11814),
    (sym_nonlocal_statement, STATE 11814), (sym_exec_statement, STATE 11814),
    (sym_type_alias_statement, STATE 11814), (sym_parameterized_alias_statement, STATE 11814),
    (sym_pattern, STATE 8086), (sym_tuple_pattern, STATE 8101), (sym_list_pattern, STATE 8101),
    (sym_list_splat_pattern, STATE 6795), (sym_as_pattern, STATE 7969),
    (sym_expression, STATE 9623), (sym_primary_expression, STATE 7326),
    (sym_comptime_expression, STATE 7017), (sym_transfer_expression, STATE 7017),
    (sym_not_operator, STATE 7969), (sym_boolean_operator, STATE 7969),
    (sym_binary_operator, STATE 7017), (sym_unary_operator, STATE 7017),
    (sym_comparison_operator, STATE 7969), (sym_lambda, STATE 7969),
    (sym_assignment, STATE 12425), (sym_augmented_assignment, STATE 12425),
    (sym_pattern_list, STATE 8578), (sym_yield, STATE 12425), (sym_attribute, STATE 6796),
    (sym_subscript, STATE 6797), (sym_call, STATE 6768), (sym_type, STATE 10130),
    (sym_called_type, STATE 9093), (sym_function_type, STATE 9093), (sym_splat_type, STATE 9093),
    (sym_generic_type, STATE 8287), (sym_union_type, STATE 9093),
    (sym_intersection_type, STATE 9093), (sym__intersection_operand, STATE 12294),
    (sym_constrained_type, STATE 9093), (sym_member_type, STATE 8165),
    (sym_mlir_type, STATE 7017), (sym_list, STATE 7017), (sym_set, STATE 7017),
    (sym_tuple, STATE 7017), (sym_dictionary, STATE 7017), (sym_struct_literal, STATE 7017),
    (sym_list_comprehension, STATE 7017), (sym_dictionary_comprehension, STATE 7017),
    (sym_set_comprehension, STATE 7017), (sym_generator_expression, STATE 7017),
    (sym_parenthesized_expression, STATE 7017), (sym_conditional_expression, STATE 7969),
    (sym_concatenated_string, STATE 7017), (sym_string, STATE 6729), (sym_await, STATE 7017),
    (sym_identifier, ACTIONS 327), (anon_sym_import, ACTIONS 11), (anon_sym_from, ACTIONS 13),
    (anon_sym_LPAREN, ACTIONS 329), (anon_sym_STAR, ACTIONS 331), (anon_sym_print, ACTIONS 333),
    (anon_sym_comptime, ACTIONS 335), (anon_sym_assert, ACTIONS 23),
    (anon_sym___comptime_assert, ACTIONS 25), (anon_sym_return, ACTIONS 27),
    (anon_sym_del, ACTIONS 29), (anon_sym_raise, ACTIONS 31), (anon_sym_pass, ACTIONS 33),
    (anon_sym_break, ACTIONS 35), (anon_sym_continue, ACTIONS 37), (anon_sym_match, ACTIONS 337),
    (anon_sym_async, ACTIONS 339), (anon_sym_def, ACTIONS 341), (anon_sym_LBRACK, ACTIONS 343),
    (anon_sym_LBRACE, ACTIONS 61), (anon_sym_STAR_STAR, ACTIONS 345),
    (anon_sym_global, ACTIONS 63), (anon_sym_nonlocal, ACTIONS 65), (anon_sym_exec, ACTIONS 347),
    (anon_sym_type, ACTIONS 349), (anon_sym_mut, ACTIONS 339), (anon_sym_out, ACTIONS 339),
    (anon_sym_DASH, ACTIONS 79), (anon_sym_PLUS, ACTIONS 79), (anon_sym_ref, ACTIONS 81),
    (anon_sym_var, ACTIONS 81), (anon_sym_not, ACTIONS 83), (anon_sym_TILDE, ACTIONS 79),
    (anon_sym_lambda, ACTIONS 85), (anon_sym_yield, ACTIONS 87), (sym_ellipsis, ACTIONS 89),
    (anon_sym___mlir_type, ACTIONS 91), (sym_integer, ACTIONS 93), (sym_float, ACTIONS 89),
    (anon_sym_await, ACTIONS 351), (sym_true, ACTIONS 93), (sym_false, ACTIONS 93),
    (sym_none, ACTIONS 93), (sym_comment, ACTIONS 3), (sym_line_continuation, ACTIONS 3),
    (sym__newline, ACTIONS 949), (sym__indent, ACTIONS 951), (sym_string_start, ACTIONS 97)]"

definition parse_table_1079 :: "(nat \<times> nat) list" where "parse_table_1079 = [
    (sym__simple_statements, STATE 5959), (sym_import_statement, STATE 12239),
    (sym_future_import_statement, STATE 12239), (sym_import_from_statement, STATE 12239),
    (sym_print_statement, STATE 12239), (sym_assert_statement, STATE 12239),
    (sym_comptime_assert_statement, STATE 12239), (sym_expression_statement, STATE 12239),
    (sym_tuple_expression, STATE 12425), (sym_named_expression, STATE 7969),
    (sym__named_expression_lhs, STATE 12752), (sym_return_statement, STATE 12239),
    (sym_delete_statement, STATE 12239), (sym_raise_statement, STATE 12239),
    (sym_pass_statement, STATE 12239), (sym_break_statement, STATE 12239),
    (sym_continue_statement, STATE 12239), (sym_global_statement, STATE 12239),
    (sym_nonlocal_statement, STATE 12239), (sym_exec_statement, STATE 12239),
    (sym_type_alias_statement, STATE 12239), (sym_parameterized_alias_statement, STATE 12239),
    (sym_pattern, STATE 8086), (sym_tuple_pattern, STATE 8101), (sym_list_pattern, STATE 8101),
    (sym_list_splat_pattern, STATE 6795), (sym_as_pattern, STATE 7969),
    (sym_expression, STATE 9623), (sym_primary_expression, STATE 7326),
    (sym_comptime_expression, STATE 7017), (sym_transfer_expression, STATE 7017),
    (sym_not_operator, STATE 7969), (sym_boolean_operator, STATE 7969),
    (sym_binary_operator, STATE 7017), (sym_unary_operator, STATE 7017),
    (sym_comparison_operator, STATE 7969), (sym_lambda, STATE 7969),
    (sym_assignment, STATE 12425), (sym_augmented_assignment, STATE 12425),
    (sym_pattern_list, STATE 8578), (sym_yield, STATE 12425), (sym_attribute, STATE 6796),
    (sym_subscript, STATE 6797), (sym_call, STATE 6768), (sym_type, STATE 10130),
    (sym_called_type, STATE 9093), (sym_function_type, STATE 9093), (sym_splat_type, STATE 9093),
    (sym_generic_type, STATE 8287), (sym_union_type, STATE 9093),
    (sym_intersection_type, STATE 9093), (sym__intersection_operand, STATE 12294),
    (sym_constrained_type, STATE 9093), (sym_member_type, STATE 8165),
    (sym_mlir_type, STATE 7017), (sym_list, STATE 7017), (sym_set, STATE 7017),
    (sym_tuple, STATE 7017), (sym_dictionary, STATE 7017), (sym_struct_literal, STATE 7017),
    (sym_list_comprehension, STATE 7017), (sym_dictionary_comprehension, STATE 7017),
    (sym_set_comprehension, STATE 7017), (sym_generator_expression, STATE 7017),
    (sym_parenthesized_expression, STATE 7017), (sym_conditional_expression, STATE 7969),
    (sym_concatenated_string, STATE 7017), (sym_string, STATE 6729), (sym_await, STATE 7017),
    (sym_identifier, ACTIONS 327), (anon_sym_import, ACTIONS 11), (anon_sym_from, ACTIONS 13),
    (anon_sym_LPAREN, ACTIONS 329), (anon_sym_STAR, ACTIONS 331), (anon_sym_print, ACTIONS 333),
    (anon_sym_comptime, ACTIONS 335), (anon_sym_assert, ACTIONS 23),
    (anon_sym___comptime_assert, ACTIONS 25), (anon_sym_return, ACTIONS 27),
    (anon_sym_del, ACTIONS 29), (anon_sym_raise, ACTIONS 31), (anon_sym_pass, ACTIONS 33),
    (anon_sym_break, ACTIONS 35), (anon_sym_continue, ACTIONS 37), (anon_sym_match, ACTIONS 337),
    (anon_sym_async, ACTIONS 339), (anon_sym_def, ACTIONS 341), (anon_sym_LBRACK, ACTIONS 343),
    (anon_sym_LBRACE, ACTIONS 61), (anon_sym_STAR_STAR, ACTIONS 345),
    (anon_sym_global, ACTIONS 63), (anon_sym_nonlocal, ACTIONS 65), (anon_sym_exec, ACTIONS 347),
    (anon_sym_type, ACTIONS 349), (anon_sym_mut, ACTIONS 339), (anon_sym_out, ACTIONS 339),
    (anon_sym_DASH, ACTIONS 79), (anon_sym_PLUS, ACTIONS 79), (anon_sym_ref, ACTIONS 81),
    (anon_sym_var, ACTIONS 81), (anon_sym_not, ACTIONS 83), (anon_sym_TILDE, ACTIONS 79),
    (anon_sym_lambda, ACTIONS 85), (anon_sym_yield, ACTIONS 87), (sym_ellipsis, ACTIONS 89),
    (anon_sym___mlir_type, ACTIONS 91), (sym_integer, ACTIONS 93), (sym_float, ACTIONS 89),
    (anon_sym_await, ACTIONS 351), (sym_true, ACTIONS 93), (sym_false, ACTIONS 93),
    (sym_none, ACTIONS 93), (sym_comment, ACTIONS 3), (sym_line_continuation, ACTIONS 3),
    (sym__newline, ACTIONS 953), (sym__indent, ACTIONS 955), (sym_string_start, ACTIONS 97)]"

definition parse_table_1080 :: "(nat \<times> nat) list" where "parse_table_1080 = [
    (sym__simple_statements, STATE 4896), (sym_import_statement, STATE 12239),
    (sym_future_import_statement, STATE 12239), (sym_import_from_statement, STATE 12239),
    (sym_print_statement, STATE 12239), (sym_assert_statement, STATE 12239),
    (sym_comptime_assert_statement, STATE 12239), (sym_expression_statement, STATE 12239),
    (sym_tuple_expression, STATE 12425), (sym_named_expression, STATE 7969),
    (sym__named_expression_lhs, STATE 12752), (sym_return_statement, STATE 12239),
    (sym_delete_statement, STATE 12239), (sym_raise_statement, STATE 12239),
    (sym_pass_statement, STATE 12239), (sym_break_statement, STATE 12239),
    (sym_continue_statement, STATE 12239), (sym_global_statement, STATE 12239),
    (sym_nonlocal_statement, STATE 12239), (sym_exec_statement, STATE 12239),
    (sym_type_alias_statement, STATE 12239), (sym_parameterized_alias_statement, STATE 12239),
    (sym_pattern, STATE 8086), (sym_tuple_pattern, STATE 8101), (sym_list_pattern, STATE 8101),
    (sym_list_splat_pattern, STATE 6795), (sym_as_pattern, STATE 7969),
    (sym_expression, STATE 9623), (sym_primary_expression, STATE 7326),
    (sym_comptime_expression, STATE 7017), (sym_transfer_expression, STATE 7017),
    (sym_not_operator, STATE 7969), (sym_boolean_operator, STATE 7969),
    (sym_binary_operator, STATE 7017), (sym_unary_operator, STATE 7017),
    (sym_comparison_operator, STATE 7969), (sym_lambda, STATE 7969),
    (sym_assignment, STATE 12425), (sym_augmented_assignment, STATE 12425),
    (sym_pattern_list, STATE 8578), (sym_yield, STATE 12425), (sym_attribute, STATE 6796),
    (sym_subscript, STATE 6797), (sym_call, STATE 6768), (sym_type, STATE 10130),
    (sym_called_type, STATE 9093), (sym_function_type, STATE 9093), (sym_splat_type, STATE 9093),
    (sym_generic_type, STATE 8287), (sym_union_type, STATE 9093),
    (sym_intersection_type, STATE 9093), (sym__intersection_operand, STATE 12294),
    (sym_constrained_type, STATE 9093), (sym_member_type, STATE 8165),
    (sym_mlir_type, STATE 7017), (sym_list, STATE 7017), (sym_set, STATE 7017),
    (sym_tuple, STATE 7017), (sym_dictionary, STATE 7017), (sym_struct_literal, STATE 7017),
    (sym_list_comprehension, STATE 7017), (sym_dictionary_comprehension, STATE 7017),
    (sym_set_comprehension, STATE 7017), (sym_generator_expression, STATE 7017),
    (sym_parenthesized_expression, STATE 7017), (sym_conditional_expression, STATE 7969),
    (sym_concatenated_string, STATE 7017), (sym_string, STATE 6729), (sym_await, STATE 7017),
    (sym_identifier, ACTIONS 327), (anon_sym_import, ACTIONS 11), (anon_sym_from, ACTIONS 13),
    (anon_sym_LPAREN, ACTIONS 329), (anon_sym_STAR, ACTIONS 331), (anon_sym_print, ACTIONS 333),
    (anon_sym_comptime, ACTIONS 335), (anon_sym_assert, ACTIONS 23),
    (anon_sym___comptime_assert, ACTIONS 25), (anon_sym_return, ACTIONS 27),
    (anon_sym_del, ACTIONS 29), (anon_sym_raise, ACTIONS 31), (anon_sym_pass, ACTIONS 33),
    (anon_sym_break, ACTIONS 35), (anon_sym_continue, ACTIONS 37), (anon_sym_match, ACTIONS 337),
    (anon_sym_async, ACTIONS 339), (anon_sym_def, ACTIONS 341), (anon_sym_LBRACK, ACTIONS 343),
    (anon_sym_LBRACE, ACTIONS 61), (anon_sym_STAR_STAR, ACTIONS 345),
    (anon_sym_global, ACTIONS 63), (anon_sym_nonlocal, ACTIONS 65), (anon_sym_exec, ACTIONS 347),
    (anon_sym_type, ACTIONS 349), (anon_sym_mut, ACTIONS 339), (anon_sym_out, ACTIONS 339),
    (anon_sym_DASH, ACTIONS 79), (anon_sym_PLUS, ACTIONS 79), (anon_sym_ref, ACTIONS 81),
    (anon_sym_var, ACTIONS 81), (anon_sym_not, ACTIONS 83), (anon_sym_TILDE, ACTIONS 79),
    (anon_sym_lambda, ACTIONS 85), (anon_sym_yield, ACTIONS 87), (sym_ellipsis, ACTIONS 89),
    (anon_sym___mlir_type, ACTIONS 91), (sym_integer, ACTIONS 93), (sym_float, ACTIONS 89),
    (anon_sym_await, ACTIONS 351), (sym_true, ACTIONS 93), (sym_false, ACTIONS 93),
    (sym_none, ACTIONS 93), (sym_comment, ACTIONS 3), (sym_line_continuation, ACTIONS 3),
    (sym__newline, ACTIONS 957), (sym__indent, ACTIONS 959), (sym_string_start, ACTIONS 97)]"

definition parse_table_1081 :: "(nat \<times> nat) list" where "parse_table_1081 = [
    (sym__simple_statements, STATE 5689), (sym_import_statement, STATE 11814),
    (sym_future_import_statement, STATE 11814), (sym_import_from_statement, STATE 11814),
    (sym_print_statement, STATE 11814), (sym_assert_statement, STATE 11814),
    (sym_comptime_assert_statement, STATE 11814), (sym_expression_statement, STATE 11814),
    (sym_tuple_expression, STATE 12425), (sym_named_expression, STATE 7969),
    (sym__named_expression_lhs, STATE 12752), (sym_return_statement, STATE 11814),
    (sym_delete_statement, STATE 11814), (sym_raise_statement, STATE 11814),
    (sym_pass_statement, STATE 11814), (sym_break_statement, STATE 11814),
    (sym_continue_statement, STATE 11814), (sym_global_statement, STATE 11814),
    (sym_nonlocal_statement, STATE 11814), (sym_exec_statement, STATE 11814),
    (sym_type_alias_statement, STATE 11814), (sym_parameterized_alias_statement, STATE 11814),
    (sym_pattern, STATE 8086), (sym_tuple_pattern, STATE 8101), (sym_list_pattern, STATE 8101),
    (sym_list_splat_pattern, STATE 6795), (sym_as_pattern, STATE 7969),
    (sym_expression, STATE 9623), (sym_primary_expression, STATE 7326),
    (sym_comptime_expression, STATE 7017), (sym_transfer_expression, STATE 7017),
    (sym_not_operator, STATE 7969), (sym_boolean_operator, STATE 7969),
    (sym_binary_operator, STATE 7017), (sym_unary_operator, STATE 7017),
    (sym_comparison_operator, STATE 7969), (sym_lambda, STATE 7969),
    (sym_assignment, STATE 12425), (sym_augmented_assignment, STATE 12425),
    (sym_pattern_list, STATE 8578), (sym_yield, STATE 12425), (sym_attribute, STATE 6796),
    (sym_subscript, STATE 6797), (sym_call, STATE 6768), (sym_type, STATE 10130),
    (sym_called_type, STATE 9093), (sym_function_type, STATE 9093), (sym_splat_type, STATE 9093),
    (sym_generic_type, STATE 8287), (sym_union_type, STATE 9093),
    (sym_intersection_type, STATE 9093), (sym__intersection_operand, STATE 12294),
    (sym_constrained_type, STATE 9093), (sym_member_type, STATE 8165),
    (sym_mlir_type, STATE 7017), (sym_list, STATE 7017), (sym_set, STATE 7017),
    (sym_tuple, STATE 7017), (sym_dictionary, STATE 7017), (sym_struct_literal, STATE 7017),
    (sym_list_comprehension, STATE 7017), (sym_dictionary_comprehension, STATE 7017),
    (sym_set_comprehension, STATE 7017), (sym_generator_expression, STATE 7017),
    (sym_parenthesized_expression, STATE 7017), (sym_conditional_expression, STATE 7969),
    (sym_concatenated_string, STATE 7017), (sym_string, STATE 6729), (sym_await, STATE 7017),
    (sym_identifier, ACTIONS 327), (anon_sym_import, ACTIONS 11), (anon_sym_from, ACTIONS 13),
    (anon_sym_LPAREN, ACTIONS 329), (anon_sym_STAR, ACTIONS 331), (anon_sym_print, ACTIONS 333),
    (anon_sym_comptime, ACTIONS 335), (anon_sym_assert, ACTIONS 23),
    (anon_sym___comptime_assert, ACTIONS 25), (anon_sym_return, ACTIONS 27),
    (anon_sym_del, ACTIONS 29), (anon_sym_raise, ACTIONS 31), (anon_sym_pass, ACTIONS 33),
    (anon_sym_break, ACTIONS 35), (anon_sym_continue, ACTIONS 37), (anon_sym_match, ACTIONS 337),
    (anon_sym_async, ACTIONS 339), (anon_sym_def, ACTIONS 341), (anon_sym_LBRACK, ACTIONS 343),
    (anon_sym_LBRACE, ACTIONS 61), (anon_sym_STAR_STAR, ACTIONS 345),
    (anon_sym_global, ACTIONS 63), (anon_sym_nonlocal, ACTIONS 65), (anon_sym_exec, ACTIONS 347),
    (anon_sym_type, ACTIONS 349), (anon_sym_mut, ACTIONS 339), (anon_sym_out, ACTIONS 339),
    (anon_sym_DASH, ACTIONS 79), (anon_sym_PLUS, ACTIONS 79), (anon_sym_ref, ACTIONS 81),
    (anon_sym_var, ACTIONS 81), (anon_sym_not, ACTIONS 83), (anon_sym_TILDE, ACTIONS 79),
    (anon_sym_lambda, ACTIONS 85), (anon_sym_yield, ACTIONS 87), (sym_ellipsis, ACTIONS 89),
    (anon_sym___mlir_type, ACTIONS 91), (sym_integer, ACTIONS 93), (sym_float, ACTIONS 89),
    (anon_sym_await, ACTIONS 351), (sym_true, ACTIONS 93), (sym_false, ACTIONS 93),
    (sym_none, ACTIONS 93), (sym_comment, ACTIONS 3), (sym_line_continuation, ACTIONS 3),
    (sym__newline, ACTIONS 961), (sym__indent, ACTIONS 963), (sym_string_start, ACTIONS 97)]"

definition parse_table_1082 :: "(nat \<times> nat) list" where "parse_table_1082 = [
    (sym__simple_statements, STATE 6535), (sym_import_statement, STATE 11814),
    (sym_future_import_statement, STATE 11814), (sym_import_from_statement, STATE 11814),
    (sym_print_statement, STATE 11814), (sym_assert_statement, STATE 11814),
    (sym_comptime_assert_statement, STATE 11814), (sym_expression_statement, STATE 11814),
    (sym_tuple_expression, STATE 12425), (sym_named_expression, STATE 7969),
    (sym__named_expression_lhs, STATE 12752), (sym_return_statement, STATE 11814),
    (sym_delete_statement, STATE 11814), (sym_raise_statement, STATE 11814),
    (sym_pass_statement, STATE 11814), (sym_break_statement, STATE 11814),
    (sym_continue_statement, STATE 11814), (sym_global_statement, STATE 11814),
    (sym_nonlocal_statement, STATE 11814), (sym_exec_statement, STATE 11814),
    (sym_type_alias_statement, STATE 11814), (sym_parameterized_alias_statement, STATE 11814),
    (sym_pattern, STATE 8086), (sym_tuple_pattern, STATE 8101), (sym_list_pattern, STATE 8101),
    (sym_list_splat_pattern, STATE 6795), (sym_as_pattern, STATE 7969),
    (sym_expression, STATE 9623), (sym_primary_expression, STATE 7326),
    (sym_comptime_expression, STATE 7017), (sym_transfer_expression, STATE 7017),
    (sym_not_operator, STATE 7969), (sym_boolean_operator, STATE 7969),
    (sym_binary_operator, STATE 7017), (sym_unary_operator, STATE 7017),
    (sym_comparison_operator, STATE 7969), (sym_lambda, STATE 7969),
    (sym_assignment, STATE 12425), (sym_augmented_assignment, STATE 12425),
    (sym_pattern_list, STATE 8578), (sym_yield, STATE 12425), (sym_attribute, STATE 6796),
    (sym_subscript, STATE 6797), (sym_call, STATE 6768), (sym_type, STATE 10130),
    (sym_called_type, STATE 9093), (sym_function_type, STATE 9093), (sym_splat_type, STATE 9093),
    (sym_generic_type, STATE 8287), (sym_union_type, STATE 9093),
    (sym_intersection_type, STATE 9093), (sym__intersection_operand, STATE 12294),
    (sym_constrained_type, STATE 9093), (sym_member_type, STATE 8165),
    (sym_mlir_type, STATE 7017), (sym_list, STATE 7017), (sym_set, STATE 7017),
    (sym_tuple, STATE 7017), (sym_dictionary, STATE 7017), (sym_struct_literal, STATE 7017),
    (sym_list_comprehension, STATE 7017), (sym_dictionary_comprehension, STATE 7017),
    (sym_set_comprehension, STATE 7017), (sym_generator_expression, STATE 7017),
    (sym_parenthesized_expression, STATE 7017), (sym_conditional_expression, STATE 7969),
    (sym_concatenated_string, STATE 7017), (sym_string, STATE 6729), (sym_await, STATE 7017),
    (sym_identifier, ACTIONS 327), (anon_sym_import, ACTIONS 11), (anon_sym_from, ACTIONS 13),
    (anon_sym_LPAREN, ACTIONS 329), (anon_sym_STAR, ACTIONS 331), (anon_sym_print, ACTIONS 333),
    (anon_sym_comptime, ACTIONS 335), (anon_sym_assert, ACTIONS 23),
    (anon_sym___comptime_assert, ACTIONS 25), (anon_sym_return, ACTIONS 27),
    (anon_sym_del, ACTIONS 29), (anon_sym_raise, ACTIONS 31), (anon_sym_pass, ACTIONS 33),
    (anon_sym_break, ACTIONS 35), (anon_sym_continue, ACTIONS 37), (anon_sym_match, ACTIONS 337),
    (anon_sym_async, ACTIONS 339), (anon_sym_def, ACTIONS 341), (anon_sym_LBRACK, ACTIONS 343),
    (anon_sym_LBRACE, ACTIONS 61), (anon_sym_STAR_STAR, ACTIONS 345),
    (anon_sym_global, ACTIONS 63), (anon_sym_nonlocal, ACTIONS 65), (anon_sym_exec, ACTIONS 347),
    (anon_sym_type, ACTIONS 349), (anon_sym_mut, ACTIONS 339), (anon_sym_out, ACTIONS 339),
    (anon_sym_DASH, ACTIONS 79), (anon_sym_PLUS, ACTIONS 79), (anon_sym_ref, ACTIONS 81),
    (anon_sym_var, ACTIONS 81), (anon_sym_not, ACTIONS 83), (anon_sym_TILDE, ACTIONS 79),
    (anon_sym_lambda, ACTIONS 85), (anon_sym_yield, ACTIONS 87), (sym_ellipsis, ACTIONS 89),
    (anon_sym___mlir_type, ACTIONS 91), (sym_integer, ACTIONS 93), (sym_float, ACTIONS 89),
    (anon_sym_await, ACTIONS 351), (sym_true, ACTIONS 93), (sym_false, ACTIONS 93),
    (sym_none, ACTIONS 93), (sym_comment, ACTIONS 3), (sym_line_continuation, ACTIONS 3),
    (sym__newline, ACTIONS 965), (sym__indent, ACTIONS 967), (sym_string_start, ACTIONS 97)]"

definition parse_table_1083 :: "(nat \<times> nat) list" where "parse_table_1083 = [
    (sym__simple_statements, STATE 4848), (sym_import_statement, STATE 11814),
    (sym_future_import_statement, STATE 11814), (sym_import_from_statement, STATE 11814),
    (sym_print_statement, STATE 11814), (sym_assert_statement, STATE 11814),
    (sym_comptime_assert_statement, STATE 11814), (sym_expression_statement, STATE 11814),
    (sym_tuple_expression, STATE 12425), (sym_named_expression, STATE 7969),
    (sym__named_expression_lhs, STATE 12752), (sym_return_statement, STATE 11814),
    (sym_delete_statement, STATE 11814), (sym_raise_statement, STATE 11814),
    (sym_pass_statement, STATE 11814), (sym_break_statement, STATE 11814),
    (sym_continue_statement, STATE 11814), (sym_global_statement, STATE 11814),
    (sym_nonlocal_statement, STATE 11814), (sym_exec_statement, STATE 11814),
    (sym_type_alias_statement, STATE 11814), (sym_parameterized_alias_statement, STATE 11814),
    (sym_pattern, STATE 8086), (sym_tuple_pattern, STATE 8101), (sym_list_pattern, STATE 8101),
    (sym_list_splat_pattern, STATE 6795), (sym_as_pattern, STATE 7969),
    (sym_expression, STATE 9623), (sym_primary_expression, STATE 7326),
    (sym_comptime_expression, STATE 7017), (sym_transfer_expression, STATE 7017),
    (sym_not_operator, STATE 7969), (sym_boolean_operator, STATE 7969),
    (sym_binary_operator, STATE 7017), (sym_unary_operator, STATE 7017),
    (sym_comparison_operator, STATE 7969), (sym_lambda, STATE 7969),
    (sym_assignment, STATE 12425), (sym_augmented_assignment, STATE 12425),
    (sym_pattern_list, STATE 8578), (sym_yield, STATE 12425), (sym_attribute, STATE 6796),
    (sym_subscript, STATE 6797), (sym_call, STATE 6768), (sym_type, STATE 10130),
    (sym_called_type, STATE 9093), (sym_function_type, STATE 9093), (sym_splat_type, STATE 9093),
    (sym_generic_type, STATE 8287), (sym_union_type, STATE 9093),
    (sym_intersection_type, STATE 9093), (sym__intersection_operand, STATE 12294),
    (sym_constrained_type, STATE 9093), (sym_member_type, STATE 8165),
    (sym_mlir_type, STATE 7017), (sym_list, STATE 7017), (sym_set, STATE 7017),
    (sym_tuple, STATE 7017), (sym_dictionary, STATE 7017), (sym_struct_literal, STATE 7017),
    (sym_list_comprehension, STATE 7017), (sym_dictionary_comprehension, STATE 7017),
    (sym_set_comprehension, STATE 7017), (sym_generator_expression, STATE 7017),
    (sym_parenthesized_expression, STATE 7017), (sym_conditional_expression, STATE 7969),
    (sym_concatenated_string, STATE 7017), (sym_string, STATE 6729), (sym_await, STATE 7017),
    (sym_identifier, ACTIONS 327), (anon_sym_import, ACTIONS 11), (anon_sym_from, ACTIONS 13),
    (anon_sym_LPAREN, ACTIONS 329), (anon_sym_STAR, ACTIONS 331), (anon_sym_print, ACTIONS 333),
    (anon_sym_comptime, ACTIONS 335), (anon_sym_assert, ACTIONS 23),
    (anon_sym___comptime_assert, ACTIONS 25), (anon_sym_return, ACTIONS 27),
    (anon_sym_del, ACTIONS 29), (anon_sym_raise, ACTIONS 31), (anon_sym_pass, ACTIONS 33),
    (anon_sym_break, ACTIONS 35), (anon_sym_continue, ACTIONS 37), (anon_sym_match, ACTIONS 337),
    (anon_sym_async, ACTIONS 339), (anon_sym_def, ACTIONS 341), (anon_sym_LBRACK, ACTIONS 343),
    (anon_sym_LBRACE, ACTIONS 61), (anon_sym_STAR_STAR, ACTIONS 345),
    (anon_sym_global, ACTIONS 63), (anon_sym_nonlocal, ACTIONS 65), (anon_sym_exec, ACTIONS 347),
    (anon_sym_type, ACTIONS 349), (anon_sym_mut, ACTIONS 339), (anon_sym_out, ACTIONS 339),
    (anon_sym_DASH, ACTIONS 79), (anon_sym_PLUS, ACTIONS 79), (anon_sym_ref, ACTIONS 81),
    (anon_sym_var, ACTIONS 81), (anon_sym_not, ACTIONS 83), (anon_sym_TILDE, ACTIONS 79),
    (anon_sym_lambda, ACTIONS 85), (anon_sym_yield, ACTIONS 87), (sym_ellipsis, ACTIONS 89),
    (anon_sym___mlir_type, ACTIONS 91), (sym_integer, ACTIONS 93), (sym_float, ACTIONS 89),
    (anon_sym_await, ACTIONS 351), (sym_true, ACTIONS 93), (sym_false, ACTIONS 93),
    (sym_none, ACTIONS 93), (sym_comment, ACTIONS 3), (sym_line_continuation, ACTIONS 3),
    (sym__newline, ACTIONS 969), (sym__indent, ACTIONS 971), (sym_string_start, ACTIONS 97)]"

definition parse_table_1084 :: "(nat \<times> nat) list" where "parse_table_1084 = [
    (sym__simple_statements, STATE 5386), (sym_import_statement, STATE 12239),
    (sym_future_import_statement, STATE 12239), (sym_import_from_statement, STATE 12239),
    (sym_print_statement, STATE 12239), (sym_assert_statement, STATE 12239),
    (sym_comptime_assert_statement, STATE 12239), (sym_expression_statement, STATE 12239),
    (sym_tuple_expression, STATE 12425), (sym_named_expression, STATE 7969),
    (sym__named_expression_lhs, STATE 12752), (sym_return_statement, STATE 12239),
    (sym_delete_statement, STATE 12239), (sym_raise_statement, STATE 12239),
    (sym_pass_statement, STATE 12239), (sym_break_statement, STATE 12239),
    (sym_continue_statement, STATE 12239), (sym_global_statement, STATE 12239),
    (sym_nonlocal_statement, STATE 12239), (sym_exec_statement, STATE 12239),
    (sym_type_alias_statement, STATE 12239), (sym_parameterized_alias_statement, STATE 12239),
    (sym_pattern, STATE 8086), (sym_tuple_pattern, STATE 8101), (sym_list_pattern, STATE 8101),
    (sym_list_splat_pattern, STATE 6795), (sym_as_pattern, STATE 7969),
    (sym_expression, STATE 9623), (sym_primary_expression, STATE 7326),
    (sym_comptime_expression, STATE 7017), (sym_transfer_expression, STATE 7017),
    (sym_not_operator, STATE 7969), (sym_boolean_operator, STATE 7969),
    (sym_binary_operator, STATE 7017), (sym_unary_operator, STATE 7017),
    (sym_comparison_operator, STATE 7969), (sym_lambda, STATE 7969),
    (sym_assignment, STATE 12425), (sym_augmented_assignment, STATE 12425),
    (sym_pattern_list, STATE 8578), (sym_yield, STATE 12425), (sym_attribute, STATE 6796),
    (sym_subscript, STATE 6797), (sym_call, STATE 6768), (sym_type, STATE 10130),
    (sym_called_type, STATE 9093), (sym_function_type, STATE 9093), (sym_splat_type, STATE 9093),
    (sym_generic_type, STATE 8287), (sym_union_type, STATE 9093),
    (sym_intersection_type, STATE 9093), (sym__intersection_operand, STATE 12294),
    (sym_constrained_type, STATE 9093), (sym_member_type, STATE 8165),
    (sym_mlir_type, STATE 7017), (sym_list, STATE 7017), (sym_set, STATE 7017),
    (sym_tuple, STATE 7017), (sym_dictionary, STATE 7017), (sym_struct_literal, STATE 7017),
    (sym_list_comprehension, STATE 7017), (sym_dictionary_comprehension, STATE 7017),
    (sym_set_comprehension, STATE 7017), (sym_generator_expression, STATE 7017),
    (sym_parenthesized_expression, STATE 7017), (sym_conditional_expression, STATE 7969),
    (sym_concatenated_string, STATE 7017), (sym_string, STATE 6729), (sym_await, STATE 7017),
    (sym_identifier, ACTIONS 327), (anon_sym_import, ACTIONS 11), (anon_sym_from, ACTIONS 13),
    (anon_sym_LPAREN, ACTIONS 329), (anon_sym_STAR, ACTIONS 331), (anon_sym_print, ACTIONS 333),
    (anon_sym_comptime, ACTIONS 335), (anon_sym_assert, ACTIONS 23),
    (anon_sym___comptime_assert, ACTIONS 25), (anon_sym_return, ACTIONS 27),
    (anon_sym_del, ACTIONS 29), (anon_sym_raise, ACTIONS 31), (anon_sym_pass, ACTIONS 33),
    (anon_sym_break, ACTIONS 35), (anon_sym_continue, ACTIONS 37), (anon_sym_match, ACTIONS 337),
    (anon_sym_async, ACTIONS 339), (anon_sym_def, ACTIONS 341), (anon_sym_LBRACK, ACTIONS 343),
    (anon_sym_LBRACE, ACTIONS 61), (anon_sym_STAR_STAR, ACTIONS 345),
    (anon_sym_global, ACTIONS 63), (anon_sym_nonlocal, ACTIONS 65), (anon_sym_exec, ACTIONS 347),
    (anon_sym_type, ACTIONS 349), (anon_sym_mut, ACTIONS 339), (anon_sym_out, ACTIONS 339),
    (anon_sym_DASH, ACTIONS 79), (anon_sym_PLUS, ACTIONS 79), (anon_sym_ref, ACTIONS 81),
    (anon_sym_var, ACTIONS 81), (anon_sym_not, ACTIONS 83), (anon_sym_TILDE, ACTIONS 79),
    (anon_sym_lambda, ACTIONS 85), (anon_sym_yield, ACTIONS 87), (sym_ellipsis, ACTIONS 89),
    (anon_sym___mlir_type, ACTIONS 91), (sym_integer, ACTIONS 93), (sym_float, ACTIONS 89),
    (anon_sym_await, ACTIONS 351), (sym_true, ACTIONS 93), (sym_false, ACTIONS 93),
    (sym_none, ACTIONS 93), (sym_comment, ACTIONS 3), (sym_line_continuation, ACTIONS 3),
    (sym__newline, ACTIONS 973), (sym__indent, ACTIONS 975), (sym_string_start, ACTIONS 97)]"

definition parse_table_1085 :: "(nat \<times> nat) list" where "parse_table_1085 = [
    (sym__simple_statements, STATE 6547), (sym_import_statement, STATE 11814),
    (sym_future_import_statement, STATE 11814), (sym_import_from_statement, STATE 11814),
    (sym_print_statement, STATE 11814), (sym_assert_statement, STATE 11814),
    (sym_comptime_assert_statement, STATE 11814), (sym_expression_statement, STATE 11814),
    (sym_tuple_expression, STATE 12425), (sym_named_expression, STATE 7969),
    (sym__named_expression_lhs, STATE 12752), (sym_return_statement, STATE 11814),
    (sym_delete_statement, STATE 11814), (sym_raise_statement, STATE 11814),
    (sym_pass_statement, STATE 11814), (sym_break_statement, STATE 11814),
    (sym_continue_statement, STATE 11814), (sym_global_statement, STATE 11814),
    (sym_nonlocal_statement, STATE 11814), (sym_exec_statement, STATE 11814),
    (sym_type_alias_statement, STATE 11814), (sym_parameterized_alias_statement, STATE 11814),
    (sym_pattern, STATE 8086), (sym_tuple_pattern, STATE 8101), (sym_list_pattern, STATE 8101),
    (sym_list_splat_pattern, STATE 6795), (sym_as_pattern, STATE 7969),
    (sym_expression, STATE 9623), (sym_primary_expression, STATE 7326),
    (sym_comptime_expression, STATE 7017), (sym_transfer_expression, STATE 7017),
    (sym_not_operator, STATE 7969), (sym_boolean_operator, STATE 7969),
    (sym_binary_operator, STATE 7017), (sym_unary_operator, STATE 7017),
    (sym_comparison_operator, STATE 7969), (sym_lambda, STATE 7969),
    (sym_assignment, STATE 12425), (sym_augmented_assignment, STATE 12425),
    (sym_pattern_list, STATE 8578), (sym_yield, STATE 12425), (sym_attribute, STATE 6796),
    (sym_subscript, STATE 6797), (sym_call, STATE 6768), (sym_type, STATE 10130),
    (sym_called_type, STATE 9093), (sym_function_type, STATE 9093), (sym_splat_type, STATE 9093),
    (sym_generic_type, STATE 8287), (sym_union_type, STATE 9093),
    (sym_intersection_type, STATE 9093), (sym__intersection_operand, STATE 12294),
    (sym_constrained_type, STATE 9093), (sym_member_type, STATE 8165),
    (sym_mlir_type, STATE 7017), (sym_list, STATE 7017), (sym_set, STATE 7017),
    (sym_tuple, STATE 7017), (sym_dictionary, STATE 7017), (sym_struct_literal, STATE 7017),
    (sym_list_comprehension, STATE 7017), (sym_dictionary_comprehension, STATE 7017),
    (sym_set_comprehension, STATE 7017), (sym_generator_expression, STATE 7017),
    (sym_parenthesized_expression, STATE 7017), (sym_conditional_expression, STATE 7969),
    (sym_concatenated_string, STATE 7017), (sym_string, STATE 6729), (sym_await, STATE 7017),
    (sym_identifier, ACTIONS 327), (anon_sym_import, ACTIONS 11), (anon_sym_from, ACTIONS 13),
    (anon_sym_LPAREN, ACTIONS 329), (anon_sym_STAR, ACTIONS 331), (anon_sym_print, ACTIONS 333),
    (anon_sym_comptime, ACTIONS 335), (anon_sym_assert, ACTIONS 23),
    (anon_sym___comptime_assert, ACTIONS 25), (anon_sym_return, ACTIONS 27),
    (anon_sym_del, ACTIONS 29), (anon_sym_raise, ACTIONS 31), (anon_sym_pass, ACTIONS 33),
    (anon_sym_break, ACTIONS 35), (anon_sym_continue, ACTIONS 37), (anon_sym_match, ACTIONS 337),
    (anon_sym_async, ACTIONS 339), (anon_sym_def, ACTIONS 341), (anon_sym_LBRACK, ACTIONS 343),
    (anon_sym_LBRACE, ACTIONS 61), (anon_sym_STAR_STAR, ACTIONS 345),
    (anon_sym_global, ACTIONS 63), (anon_sym_nonlocal, ACTIONS 65), (anon_sym_exec, ACTIONS 347),
    (anon_sym_type, ACTIONS 349), (anon_sym_mut, ACTIONS 339), (anon_sym_out, ACTIONS 339),
    (anon_sym_DASH, ACTIONS 79), (anon_sym_PLUS, ACTIONS 79), (anon_sym_ref, ACTIONS 81),
    (anon_sym_var, ACTIONS 81), (anon_sym_not, ACTIONS 83), (anon_sym_TILDE, ACTIONS 79),
    (anon_sym_lambda, ACTIONS 85), (anon_sym_yield, ACTIONS 87), (sym_ellipsis, ACTIONS 89),
    (anon_sym___mlir_type, ACTIONS 91), (sym_integer, ACTIONS 93), (sym_float, ACTIONS 89),
    (anon_sym_await, ACTIONS 351), (sym_true, ACTIONS 93), (sym_false, ACTIONS 93),
    (sym_none, ACTIONS 93), (sym_comment, ACTIONS 3), (sym_line_continuation, ACTIONS 3),
    (sym__newline, ACTIONS 977), (sym__indent, ACTIONS 979), (sym_string_start, ACTIONS 97)]"

definition parse_table_1086 :: "(nat \<times> nat) list" where "parse_table_1086 = [
    (sym__simple_statements, STATE 5391), (sym_import_statement, STATE 12239),
    (sym_future_import_statement, STATE 12239), (sym_import_from_statement, STATE 12239),
    (sym_print_statement, STATE 12239), (sym_assert_statement, STATE 12239),
    (sym_comptime_assert_statement, STATE 12239), (sym_expression_statement, STATE 12239),
    (sym_tuple_expression, STATE 12425), (sym_named_expression, STATE 7969),
    (sym__named_expression_lhs, STATE 12752), (sym_return_statement, STATE 12239),
    (sym_delete_statement, STATE 12239), (sym_raise_statement, STATE 12239),
    (sym_pass_statement, STATE 12239), (sym_break_statement, STATE 12239),
    (sym_continue_statement, STATE 12239), (sym_global_statement, STATE 12239),
    (sym_nonlocal_statement, STATE 12239), (sym_exec_statement, STATE 12239),
    (sym_type_alias_statement, STATE 12239), (sym_parameterized_alias_statement, STATE 12239),
    (sym_pattern, STATE 8086), (sym_tuple_pattern, STATE 8101), (sym_list_pattern, STATE 8101),
    (sym_list_splat_pattern, STATE 6795), (sym_as_pattern, STATE 7969),
    (sym_expression, STATE 9623), (sym_primary_expression, STATE 7326),
    (sym_comptime_expression, STATE 7017), (sym_transfer_expression, STATE 7017),
    (sym_not_operator, STATE 7969), (sym_boolean_operator, STATE 7969),
    (sym_binary_operator, STATE 7017), (sym_unary_operator, STATE 7017),
    (sym_comparison_operator, STATE 7969), (sym_lambda, STATE 7969),
    (sym_assignment, STATE 12425), (sym_augmented_assignment, STATE 12425),
    (sym_pattern_list, STATE 8578), (sym_yield, STATE 12425), (sym_attribute, STATE 6796),
    (sym_subscript, STATE 6797), (sym_call, STATE 6768), (sym_type, STATE 10130),
    (sym_called_type, STATE 9093), (sym_function_type, STATE 9093), (sym_splat_type, STATE 9093),
    (sym_generic_type, STATE 8287), (sym_union_type, STATE 9093),
    (sym_intersection_type, STATE 9093), (sym__intersection_operand, STATE 12294),
    (sym_constrained_type, STATE 9093), (sym_member_type, STATE 8165),
    (sym_mlir_type, STATE 7017), (sym_list, STATE 7017), (sym_set, STATE 7017),
    (sym_tuple, STATE 7017), (sym_dictionary, STATE 7017), (sym_struct_literal, STATE 7017),
    (sym_list_comprehension, STATE 7017), (sym_dictionary_comprehension, STATE 7017),
    (sym_set_comprehension, STATE 7017), (sym_generator_expression, STATE 7017),
    (sym_parenthesized_expression, STATE 7017), (sym_conditional_expression, STATE 7969),
    (sym_concatenated_string, STATE 7017), (sym_string, STATE 6729), (sym_await, STATE 7017),
    (sym_identifier, ACTIONS 327), (anon_sym_import, ACTIONS 11), (anon_sym_from, ACTIONS 13),
    (anon_sym_LPAREN, ACTIONS 329), (anon_sym_STAR, ACTIONS 331), (anon_sym_print, ACTIONS 333),
    (anon_sym_comptime, ACTIONS 335), (anon_sym_assert, ACTIONS 23),
    (anon_sym___comptime_assert, ACTIONS 25), (anon_sym_return, ACTIONS 27),
    (anon_sym_del, ACTIONS 29), (anon_sym_raise, ACTIONS 31), (anon_sym_pass, ACTIONS 33),
    (anon_sym_break, ACTIONS 35), (anon_sym_continue, ACTIONS 37), (anon_sym_match, ACTIONS 337),
    (anon_sym_async, ACTIONS 339), (anon_sym_def, ACTIONS 341), (anon_sym_LBRACK, ACTIONS 343),
    (anon_sym_LBRACE, ACTIONS 61), (anon_sym_STAR_STAR, ACTIONS 345),
    (anon_sym_global, ACTIONS 63), (anon_sym_nonlocal, ACTIONS 65), (anon_sym_exec, ACTIONS 347),
    (anon_sym_type, ACTIONS 349), (anon_sym_mut, ACTIONS 339), (anon_sym_out, ACTIONS 339),
    (anon_sym_DASH, ACTIONS 79), (anon_sym_PLUS, ACTIONS 79), (anon_sym_ref, ACTIONS 81),
    (anon_sym_var, ACTIONS 81), (anon_sym_not, ACTIONS 83), (anon_sym_TILDE, ACTIONS 79),
    (anon_sym_lambda, ACTIONS 85), (anon_sym_yield, ACTIONS 87), (sym_ellipsis, ACTIONS 89),
    (anon_sym___mlir_type, ACTIONS 91), (sym_integer, ACTIONS 93), (sym_float, ACTIONS 89),
    (anon_sym_await, ACTIONS 351), (sym_true, ACTIONS 93), (sym_false, ACTIONS 93),
    (sym_none, ACTIONS 93), (sym_comment, ACTIONS 3), (sym_line_continuation, ACTIONS 3),
    (sym__newline, ACTIONS 981), (sym__indent, ACTIONS 983), (sym_string_start, ACTIONS 97)]"

definition parse_table_1087 :: "(nat \<times> nat) list" where "parse_table_1087 = [
    (sym__simple_statements, STATE 5121), (sym_import_statement, STATE 12239),
    (sym_future_import_statement, STATE 12239), (sym_import_from_statement, STATE 12239),
    (sym_print_statement, STATE 12239), (sym_assert_statement, STATE 12239),
    (sym_comptime_assert_statement, STATE 12239), (sym_expression_statement, STATE 12239),
    (sym_tuple_expression, STATE 12425), (sym_named_expression, STATE 7969),
    (sym__named_expression_lhs, STATE 12752), (sym_return_statement, STATE 12239),
    (sym_delete_statement, STATE 12239), (sym_raise_statement, STATE 12239),
    (sym_pass_statement, STATE 12239), (sym_break_statement, STATE 12239),
    (sym_continue_statement, STATE 12239), (sym_global_statement, STATE 12239),
    (sym_nonlocal_statement, STATE 12239), (sym_exec_statement, STATE 12239),
    (sym_type_alias_statement, STATE 12239), (sym_parameterized_alias_statement, STATE 12239),
    (sym_pattern, STATE 8086), (sym_tuple_pattern, STATE 8101), (sym_list_pattern, STATE 8101),
    (sym_list_splat_pattern, STATE 6795), (sym_as_pattern, STATE 7969),
    (sym_expression, STATE 9623), (sym_primary_expression, STATE 7326),
    (sym_comptime_expression, STATE 7017), (sym_transfer_expression, STATE 7017),
    (sym_not_operator, STATE 7969), (sym_boolean_operator, STATE 7969),
    (sym_binary_operator, STATE 7017), (sym_unary_operator, STATE 7017),
    (sym_comparison_operator, STATE 7969), (sym_lambda, STATE 7969),
    (sym_assignment, STATE 12425), (sym_augmented_assignment, STATE 12425),
    (sym_pattern_list, STATE 8578), (sym_yield, STATE 12425), (sym_attribute, STATE 6796),
    (sym_subscript, STATE 6797), (sym_call, STATE 6768), (sym_type, STATE 10130),
    (sym_called_type, STATE 9093), (sym_function_type, STATE 9093), (sym_splat_type, STATE 9093),
    (sym_generic_type, STATE 8287), (sym_union_type, STATE 9093),
    (sym_intersection_type, STATE 9093), (sym__intersection_operand, STATE 12294),
    (sym_constrained_type, STATE 9093), (sym_member_type, STATE 8165),
    (sym_mlir_type, STATE 7017), (sym_list, STATE 7017), (sym_set, STATE 7017),
    (sym_tuple, STATE 7017), (sym_dictionary, STATE 7017), (sym_struct_literal, STATE 7017),
    (sym_list_comprehension, STATE 7017), (sym_dictionary_comprehension, STATE 7017),
    (sym_set_comprehension, STATE 7017), (sym_generator_expression, STATE 7017),
    (sym_parenthesized_expression, STATE 7017), (sym_conditional_expression, STATE 7969),
    (sym_concatenated_string, STATE 7017), (sym_string, STATE 6729), (sym_await, STATE 7017),
    (sym_identifier, ACTIONS 327), (anon_sym_import, ACTIONS 11), (anon_sym_from, ACTIONS 13),
    (anon_sym_LPAREN, ACTIONS 329), (anon_sym_STAR, ACTIONS 331), (anon_sym_print, ACTIONS 333),
    (anon_sym_comptime, ACTIONS 335), (anon_sym_assert, ACTIONS 23),
    (anon_sym___comptime_assert, ACTIONS 25), (anon_sym_return, ACTIONS 27),
    (anon_sym_del, ACTIONS 29), (anon_sym_raise, ACTIONS 31), (anon_sym_pass, ACTIONS 33),
    (anon_sym_break, ACTIONS 35), (anon_sym_continue, ACTIONS 37), (anon_sym_match, ACTIONS 337),
    (anon_sym_async, ACTIONS 339), (anon_sym_def, ACTIONS 341), (anon_sym_LBRACK, ACTIONS 343),
    (anon_sym_LBRACE, ACTIONS 61), (anon_sym_STAR_STAR, ACTIONS 345),
    (anon_sym_global, ACTIONS 63), (anon_sym_nonlocal, ACTIONS 65), (anon_sym_exec, ACTIONS 347),
    (anon_sym_type, ACTIONS 349), (anon_sym_mut, ACTIONS 339), (anon_sym_out, ACTIONS 339),
    (anon_sym_DASH, ACTIONS 79), (anon_sym_PLUS, ACTIONS 79), (anon_sym_ref, ACTIONS 81),
    (anon_sym_var, ACTIONS 81), (anon_sym_not, ACTIONS 83), (anon_sym_TILDE, ACTIONS 79),
    (anon_sym_lambda, ACTIONS 85), (anon_sym_yield, ACTIONS 87), (sym_ellipsis, ACTIONS 89),
    (anon_sym___mlir_type, ACTIONS 91), (sym_integer, ACTIONS 93), (sym_float, ACTIONS 89),
    (anon_sym_await, ACTIONS 351), (sym_true, ACTIONS 93), (sym_false, ACTIONS 93),
    (sym_none, ACTIONS 93), (sym_comment, ACTIONS 3), (sym_line_continuation, ACTIONS 3),
    (sym__newline, ACTIONS 985), (sym__indent, ACTIONS 987), (sym_string_start, ACTIONS 97)]"

definition parse_table_1088 :: "(nat \<times> nat) list" where "parse_table_1088 = [
    (sym__simple_statements, STATE 6554), (sym_import_statement, STATE 11814),
    (sym_future_import_statement, STATE 11814), (sym_import_from_statement, STATE 11814),
    (sym_print_statement, STATE 11814), (sym_assert_statement, STATE 11814),
    (sym_comptime_assert_statement, STATE 11814), (sym_expression_statement, STATE 11814),
    (sym_tuple_expression, STATE 12425), (sym_named_expression, STATE 7969),
    (sym__named_expression_lhs, STATE 12752), (sym_return_statement, STATE 11814),
    (sym_delete_statement, STATE 11814), (sym_raise_statement, STATE 11814),
    (sym_pass_statement, STATE 11814), (sym_break_statement, STATE 11814),
    (sym_continue_statement, STATE 11814), (sym_global_statement, STATE 11814),
    (sym_nonlocal_statement, STATE 11814), (sym_exec_statement, STATE 11814),
    (sym_type_alias_statement, STATE 11814), (sym_parameterized_alias_statement, STATE 11814),
    (sym_pattern, STATE 8086), (sym_tuple_pattern, STATE 8101), (sym_list_pattern, STATE 8101),
    (sym_list_splat_pattern, STATE 6795), (sym_as_pattern, STATE 7969),
    (sym_expression, STATE 9623), (sym_primary_expression, STATE 7326),
    (sym_comptime_expression, STATE 7017), (sym_transfer_expression, STATE 7017),
    (sym_not_operator, STATE 7969), (sym_boolean_operator, STATE 7969),
    (sym_binary_operator, STATE 7017), (sym_unary_operator, STATE 7017),
    (sym_comparison_operator, STATE 7969), (sym_lambda, STATE 7969),
    (sym_assignment, STATE 12425), (sym_augmented_assignment, STATE 12425),
    (sym_pattern_list, STATE 8578), (sym_yield, STATE 12425), (sym_attribute, STATE 6796),
    (sym_subscript, STATE 6797), (sym_call, STATE 6768), (sym_type, STATE 10130),
    (sym_called_type, STATE 9093), (sym_function_type, STATE 9093), (sym_splat_type, STATE 9093),
    (sym_generic_type, STATE 8287), (sym_union_type, STATE 9093),
    (sym_intersection_type, STATE 9093), (sym__intersection_operand, STATE 12294),
    (sym_constrained_type, STATE 9093), (sym_member_type, STATE 8165),
    (sym_mlir_type, STATE 7017), (sym_list, STATE 7017), (sym_set, STATE 7017),
    (sym_tuple, STATE 7017), (sym_dictionary, STATE 7017), (sym_struct_literal, STATE 7017),
    (sym_list_comprehension, STATE 7017), (sym_dictionary_comprehension, STATE 7017),
    (sym_set_comprehension, STATE 7017), (sym_generator_expression, STATE 7017),
    (sym_parenthesized_expression, STATE 7017), (sym_conditional_expression, STATE 7969),
    (sym_concatenated_string, STATE 7017), (sym_string, STATE 6729), (sym_await, STATE 7017),
    (sym_identifier, ACTIONS 327), (anon_sym_import, ACTIONS 11), (anon_sym_from, ACTIONS 13),
    (anon_sym_LPAREN, ACTIONS 329), (anon_sym_STAR, ACTIONS 331), (anon_sym_print, ACTIONS 333),
    (anon_sym_comptime, ACTIONS 335), (anon_sym_assert, ACTIONS 23),
    (anon_sym___comptime_assert, ACTIONS 25), (anon_sym_return, ACTIONS 27),
    (anon_sym_del, ACTIONS 29), (anon_sym_raise, ACTIONS 31), (anon_sym_pass, ACTIONS 33),
    (anon_sym_break, ACTIONS 35), (anon_sym_continue, ACTIONS 37), (anon_sym_match, ACTIONS 337),
    (anon_sym_async, ACTIONS 339), (anon_sym_def, ACTIONS 341), (anon_sym_LBRACK, ACTIONS 343),
    (anon_sym_LBRACE, ACTIONS 61), (anon_sym_STAR_STAR, ACTIONS 345),
    (anon_sym_global, ACTIONS 63), (anon_sym_nonlocal, ACTIONS 65), (anon_sym_exec, ACTIONS 347),
    (anon_sym_type, ACTIONS 349), (anon_sym_mut, ACTIONS 339), (anon_sym_out, ACTIONS 339),
    (anon_sym_DASH, ACTIONS 79), (anon_sym_PLUS, ACTIONS 79), (anon_sym_ref, ACTIONS 81),
    (anon_sym_var, ACTIONS 81), (anon_sym_not, ACTIONS 83), (anon_sym_TILDE, ACTIONS 79),
    (anon_sym_lambda, ACTIONS 85), (anon_sym_yield, ACTIONS 87), (sym_ellipsis, ACTIONS 89),
    (anon_sym___mlir_type, ACTIONS 91), (sym_integer, ACTIONS 93), (sym_float, ACTIONS 89),
    (anon_sym_await, ACTIONS 351), (sym_true, ACTIONS 93), (sym_false, ACTIONS 93),
    (sym_none, ACTIONS 93), (sym_comment, ACTIONS 3), (sym_line_continuation, ACTIONS 3),
    (sym__newline, ACTIONS 989), (sym__indent, ACTIONS 991), (sym_string_start, ACTIONS 97)]"

definition parse_table_1089 :: "(nat \<times> nat) list" where "parse_table_1089 = [
    (sym__simple_statements, STATE 4837), (sym_import_statement, STATE 11814),
    (sym_future_import_statement, STATE 11814), (sym_import_from_statement, STATE 11814),
    (sym_print_statement, STATE 11814), (sym_assert_statement, STATE 11814),
    (sym_comptime_assert_statement, STATE 11814), (sym_expression_statement, STATE 11814),
    (sym_tuple_expression, STATE 12425), (sym_named_expression, STATE 7969),
    (sym__named_expression_lhs, STATE 12752), (sym_return_statement, STATE 11814),
    (sym_delete_statement, STATE 11814), (sym_raise_statement, STATE 11814),
    (sym_pass_statement, STATE 11814), (sym_break_statement, STATE 11814),
    (sym_continue_statement, STATE 11814), (sym_global_statement, STATE 11814),
    (sym_nonlocal_statement, STATE 11814), (sym_exec_statement, STATE 11814),
    (sym_type_alias_statement, STATE 11814), (sym_parameterized_alias_statement, STATE 11814),
    (sym_pattern, STATE 8086), (sym_tuple_pattern, STATE 8101), (sym_list_pattern, STATE 8101),
    (sym_list_splat_pattern, STATE 6795), (sym_as_pattern, STATE 7969),
    (sym_expression, STATE 9623), (sym_primary_expression, STATE 7326),
    (sym_comptime_expression, STATE 7017), (sym_transfer_expression, STATE 7017),
    (sym_not_operator, STATE 7969), (sym_boolean_operator, STATE 7969),
    (sym_binary_operator, STATE 7017), (sym_unary_operator, STATE 7017),
    (sym_comparison_operator, STATE 7969), (sym_lambda, STATE 7969),
    (sym_assignment, STATE 12425), (sym_augmented_assignment, STATE 12425),
    (sym_pattern_list, STATE 8578), (sym_yield, STATE 12425), (sym_attribute, STATE 6796),
    (sym_subscript, STATE 6797), (sym_call, STATE 6768), (sym_type, STATE 10130),
    (sym_called_type, STATE 9093), (sym_function_type, STATE 9093), (sym_splat_type, STATE 9093),
    (sym_generic_type, STATE 8287), (sym_union_type, STATE 9093),
    (sym_intersection_type, STATE 9093), (sym__intersection_operand, STATE 12294),
    (sym_constrained_type, STATE 9093), (sym_member_type, STATE 8165),
    (sym_mlir_type, STATE 7017), (sym_list, STATE 7017), (sym_set, STATE 7017),
    (sym_tuple, STATE 7017), (sym_dictionary, STATE 7017), (sym_struct_literal, STATE 7017),
    (sym_list_comprehension, STATE 7017), (sym_dictionary_comprehension, STATE 7017),
    (sym_set_comprehension, STATE 7017), (sym_generator_expression, STATE 7017),
    (sym_parenthesized_expression, STATE 7017), (sym_conditional_expression, STATE 7969),
    (sym_concatenated_string, STATE 7017), (sym_string, STATE 6729), (sym_await, STATE 7017),
    (sym_identifier, ACTIONS 327), (anon_sym_import, ACTIONS 11), (anon_sym_from, ACTIONS 13),
    (anon_sym_LPAREN, ACTIONS 329), (anon_sym_STAR, ACTIONS 331), (anon_sym_print, ACTIONS 333),
    (anon_sym_comptime, ACTIONS 335), (anon_sym_assert, ACTIONS 23),
    (anon_sym___comptime_assert, ACTIONS 25), (anon_sym_return, ACTIONS 27),
    (anon_sym_del, ACTIONS 29), (anon_sym_raise, ACTIONS 31), (anon_sym_pass, ACTIONS 33),
    (anon_sym_break, ACTIONS 35), (anon_sym_continue, ACTIONS 37), (anon_sym_match, ACTIONS 337),
    (anon_sym_async, ACTIONS 339), (anon_sym_def, ACTIONS 341), (anon_sym_LBRACK, ACTIONS 343),
    (anon_sym_LBRACE, ACTIONS 61), (anon_sym_STAR_STAR, ACTIONS 345),
    (anon_sym_global, ACTIONS 63), (anon_sym_nonlocal, ACTIONS 65), (anon_sym_exec, ACTIONS 347),
    (anon_sym_type, ACTIONS 349), (anon_sym_mut, ACTIONS 339), (anon_sym_out, ACTIONS 339),
    (anon_sym_DASH, ACTIONS 79), (anon_sym_PLUS, ACTIONS 79), (anon_sym_ref, ACTIONS 81),
    (anon_sym_var, ACTIONS 81), (anon_sym_not, ACTIONS 83), (anon_sym_TILDE, ACTIONS 79),
    (anon_sym_lambda, ACTIONS 85), (anon_sym_yield, ACTIONS 87), (sym_ellipsis, ACTIONS 89),
    (anon_sym___mlir_type, ACTIONS 91), (sym_integer, ACTIONS 93), (sym_float, ACTIONS 89),
    (anon_sym_await, ACTIONS 351), (sym_true, ACTIONS 93), (sym_false, ACTIONS 93),
    (sym_none, ACTIONS 93), (sym_comment, ACTIONS 3), (sym_line_continuation, ACTIONS 3),
    (sym__newline, ACTIONS 993), (sym__indent, ACTIONS 995), (sym_string_start, ACTIONS 97)]"

definition parse_table_1090 :: "(nat \<times> nat) list" where "parse_table_1090 = [
    (sym__simple_statements, STATE 6084), (sym_import_statement, STATE 12239),
    (sym_future_import_statement, STATE 12239), (sym_import_from_statement, STATE 12239),
    (sym_print_statement, STATE 12239), (sym_assert_statement, STATE 12239),
    (sym_comptime_assert_statement, STATE 12239), (sym_expression_statement, STATE 12239),
    (sym_tuple_expression, STATE 12425), (sym_named_expression, STATE 7969),
    (sym__named_expression_lhs, STATE 12752), (sym_return_statement, STATE 12239),
    (sym_delete_statement, STATE 12239), (sym_raise_statement, STATE 12239),
    (sym_pass_statement, STATE 12239), (sym_break_statement, STATE 12239),
    (sym_continue_statement, STATE 12239), (sym_global_statement, STATE 12239),
    (sym_nonlocal_statement, STATE 12239), (sym_exec_statement, STATE 12239),
    (sym_type_alias_statement, STATE 12239), (sym_parameterized_alias_statement, STATE 12239),
    (sym_pattern, STATE 8086), (sym_tuple_pattern, STATE 8101), (sym_list_pattern, STATE 8101),
    (sym_list_splat_pattern, STATE 6795), (sym_as_pattern, STATE 7969),
    (sym_expression, STATE 9623), (sym_primary_expression, STATE 7326),
    (sym_comptime_expression, STATE 7017), (sym_transfer_expression, STATE 7017),
    (sym_not_operator, STATE 7969), (sym_boolean_operator, STATE 7969),
    (sym_binary_operator, STATE 7017), (sym_unary_operator, STATE 7017),
    (sym_comparison_operator, STATE 7969), (sym_lambda, STATE 7969),
    (sym_assignment, STATE 12425), (sym_augmented_assignment, STATE 12425),
    (sym_pattern_list, STATE 8578), (sym_yield, STATE 12425), (sym_attribute, STATE 6796),
    (sym_subscript, STATE 6797), (sym_call, STATE 6768), (sym_type, STATE 10130),
    (sym_called_type, STATE 9093), (sym_function_type, STATE 9093), (sym_splat_type, STATE 9093),
    (sym_generic_type, STATE 8287), (sym_union_type, STATE 9093),
    (sym_intersection_type, STATE 9093), (sym__intersection_operand, STATE 12294),
    (sym_constrained_type, STATE 9093), (sym_member_type, STATE 8165),
    (sym_mlir_type, STATE 7017), (sym_list, STATE 7017), (sym_set, STATE 7017),
    (sym_tuple, STATE 7017), (sym_dictionary, STATE 7017), (sym_struct_literal, STATE 7017),
    (sym_list_comprehension, STATE 7017), (sym_dictionary_comprehension, STATE 7017),
    (sym_set_comprehension, STATE 7017), (sym_generator_expression, STATE 7017),
    (sym_parenthesized_expression, STATE 7017), (sym_conditional_expression, STATE 7969),
    (sym_concatenated_string, STATE 7017), (sym_string, STATE 6729), (sym_await, STATE 7017),
    (sym_identifier, ACTIONS 327), (anon_sym_import, ACTIONS 11), (anon_sym_from, ACTIONS 13),
    (anon_sym_LPAREN, ACTIONS 329), (anon_sym_STAR, ACTIONS 331), (anon_sym_print, ACTIONS 333),
    (anon_sym_comptime, ACTIONS 335), (anon_sym_assert, ACTIONS 23),
    (anon_sym___comptime_assert, ACTIONS 25), (anon_sym_return, ACTIONS 27),
    (anon_sym_del, ACTIONS 29), (anon_sym_raise, ACTIONS 31), (anon_sym_pass, ACTIONS 33),
    (anon_sym_break, ACTIONS 35), (anon_sym_continue, ACTIONS 37), (anon_sym_match, ACTIONS 337),
    (anon_sym_async, ACTIONS 339), (anon_sym_def, ACTIONS 341), (anon_sym_LBRACK, ACTIONS 343),
    (anon_sym_LBRACE, ACTIONS 61), (anon_sym_STAR_STAR, ACTIONS 345),
    (anon_sym_global, ACTIONS 63), (anon_sym_nonlocal, ACTIONS 65), (anon_sym_exec, ACTIONS 347),
    (anon_sym_type, ACTIONS 349), (anon_sym_mut, ACTIONS 339), (anon_sym_out, ACTIONS 339),
    (anon_sym_DASH, ACTIONS 79), (anon_sym_PLUS, ACTIONS 79), (anon_sym_ref, ACTIONS 81),
    (anon_sym_var, ACTIONS 81), (anon_sym_not, ACTIONS 83), (anon_sym_TILDE, ACTIONS 79),
    (anon_sym_lambda, ACTIONS 85), (anon_sym_yield, ACTIONS 87), (sym_ellipsis, ACTIONS 89),
    (anon_sym___mlir_type, ACTIONS 91), (sym_integer, ACTIONS 93), (sym_float, ACTIONS 89),
    (anon_sym_await, ACTIONS 351), (sym_true, ACTIONS 93), (sym_false, ACTIONS 93),
    (sym_none, ACTIONS 93), (sym_comment, ACTIONS 3), (sym_line_continuation, ACTIONS 3),
    (sym__newline, ACTIONS 997), (sym__indent, ACTIONS 999), (sym_string_start, ACTIONS 97)]"

definition parse_table_1091 :: "(nat \<times> nat) list" where "parse_table_1091 = [
    (sym__simple_statements, STATE 5400), (sym_import_statement, STATE 12239),
    (sym_future_import_statement, STATE 12239), (sym_import_from_statement, STATE 12239),
    (sym_print_statement, STATE 12239), (sym_assert_statement, STATE 12239),
    (sym_comptime_assert_statement, STATE 12239), (sym_expression_statement, STATE 12239),
    (sym_tuple_expression, STATE 12425), (sym_named_expression, STATE 7969),
    (sym__named_expression_lhs, STATE 12752), (sym_return_statement, STATE 12239),
    (sym_delete_statement, STATE 12239), (sym_raise_statement, STATE 12239),
    (sym_pass_statement, STATE 12239), (sym_break_statement, STATE 12239),
    (sym_continue_statement, STATE 12239), (sym_global_statement, STATE 12239),
    (sym_nonlocal_statement, STATE 12239), (sym_exec_statement, STATE 12239),
    (sym_type_alias_statement, STATE 12239), (sym_parameterized_alias_statement, STATE 12239),
    (sym_pattern, STATE 8086), (sym_tuple_pattern, STATE 8101), (sym_list_pattern, STATE 8101),
    (sym_list_splat_pattern, STATE 6795), (sym_as_pattern, STATE 7969),
    (sym_expression, STATE 9623), (sym_primary_expression, STATE 7326),
    (sym_comptime_expression, STATE 7017), (sym_transfer_expression, STATE 7017),
    (sym_not_operator, STATE 7969), (sym_boolean_operator, STATE 7969),
    (sym_binary_operator, STATE 7017), (sym_unary_operator, STATE 7017),
    (sym_comparison_operator, STATE 7969), (sym_lambda, STATE 7969),
    (sym_assignment, STATE 12425), (sym_augmented_assignment, STATE 12425),
    (sym_pattern_list, STATE 8578), (sym_yield, STATE 12425), (sym_attribute, STATE 6796),
    (sym_subscript, STATE 6797), (sym_call, STATE 6768), (sym_type, STATE 10130),
    (sym_called_type, STATE 9093), (sym_function_type, STATE 9093), (sym_splat_type, STATE 9093),
    (sym_generic_type, STATE 8287), (sym_union_type, STATE 9093),
    (sym_intersection_type, STATE 9093), (sym__intersection_operand, STATE 12294),
    (sym_constrained_type, STATE 9093), (sym_member_type, STATE 8165),
    (sym_mlir_type, STATE 7017), (sym_list, STATE 7017), (sym_set, STATE 7017),
    (sym_tuple, STATE 7017), (sym_dictionary, STATE 7017), (sym_struct_literal, STATE 7017),
    (sym_list_comprehension, STATE 7017), (sym_dictionary_comprehension, STATE 7017),
    (sym_set_comprehension, STATE 7017), (sym_generator_expression, STATE 7017),
    (sym_parenthesized_expression, STATE 7017), (sym_conditional_expression, STATE 7969),
    (sym_concatenated_string, STATE 7017), (sym_string, STATE 6729), (sym_await, STATE 7017),
    (sym_identifier, ACTIONS 327), (anon_sym_import, ACTIONS 11), (anon_sym_from, ACTIONS 13),
    (anon_sym_LPAREN, ACTIONS 329), (anon_sym_STAR, ACTIONS 331), (anon_sym_print, ACTIONS 333),
    (anon_sym_comptime, ACTIONS 335), (anon_sym_assert, ACTIONS 23),
    (anon_sym___comptime_assert, ACTIONS 25), (anon_sym_return, ACTIONS 27),
    (anon_sym_del, ACTIONS 29), (anon_sym_raise, ACTIONS 31), (anon_sym_pass, ACTIONS 33),
    (anon_sym_break, ACTIONS 35), (anon_sym_continue, ACTIONS 37), (anon_sym_match, ACTIONS 337),
    (anon_sym_async, ACTIONS 339), (anon_sym_def, ACTIONS 341), (anon_sym_LBRACK, ACTIONS 343),
    (anon_sym_LBRACE, ACTIONS 61), (anon_sym_STAR_STAR, ACTIONS 345),
    (anon_sym_global, ACTIONS 63), (anon_sym_nonlocal, ACTIONS 65), (anon_sym_exec, ACTIONS 347),
    (anon_sym_type, ACTIONS 349), (anon_sym_mut, ACTIONS 339), (anon_sym_out, ACTIONS 339),
    (anon_sym_DASH, ACTIONS 79), (anon_sym_PLUS, ACTIONS 79), (anon_sym_ref, ACTIONS 81),
    (anon_sym_var, ACTIONS 81), (anon_sym_not, ACTIONS 83), (anon_sym_TILDE, ACTIONS 79),
    (anon_sym_lambda, ACTIONS 85), (anon_sym_yield, ACTIONS 87), (sym_ellipsis, ACTIONS 89),
    (anon_sym___mlir_type, ACTIONS 91), (sym_integer, ACTIONS 93), (sym_float, ACTIONS 89),
    (anon_sym_await, ACTIONS 351), (sym_true, ACTIONS 93), (sym_false, ACTIONS 93),
    (sym_none, ACTIONS 93), (sym_comment, ACTIONS 3), (sym_line_continuation, ACTIONS 3),
    (sym__newline, ACTIONS 1001), (sym__indent, ACTIONS 1003), (sym_string_start, ACTIONS 97)]"

definition parse_table_1092 :: "(nat \<times> nat) list" where "parse_table_1092 = [
    (sym__simple_statements, STATE 5729), (sym_import_statement, STATE 11814),
    (sym_future_import_statement, STATE 11814), (sym_import_from_statement, STATE 11814),
    (sym_print_statement, STATE 11814), (sym_assert_statement, STATE 11814),
    (sym_comptime_assert_statement, STATE 11814), (sym_expression_statement, STATE 11814),
    (sym_tuple_expression, STATE 12425), (sym_named_expression, STATE 7969),
    (sym__named_expression_lhs, STATE 12752), (sym_return_statement, STATE 11814),
    (sym_delete_statement, STATE 11814), (sym_raise_statement, STATE 11814),
    (sym_pass_statement, STATE 11814), (sym_break_statement, STATE 11814),
    (sym_continue_statement, STATE 11814), (sym_global_statement, STATE 11814),
    (sym_nonlocal_statement, STATE 11814), (sym_exec_statement, STATE 11814),
    (sym_type_alias_statement, STATE 11814), (sym_parameterized_alias_statement, STATE 11814),
    (sym_pattern, STATE 8086), (sym_tuple_pattern, STATE 8101), (sym_list_pattern, STATE 8101),
    (sym_list_splat_pattern, STATE 6795), (sym_as_pattern, STATE 7969),
    (sym_expression, STATE 9623), (sym_primary_expression, STATE 7326),
    (sym_comptime_expression, STATE 7017), (sym_transfer_expression, STATE 7017),
    (sym_not_operator, STATE 7969), (sym_boolean_operator, STATE 7969),
    (sym_binary_operator, STATE 7017), (sym_unary_operator, STATE 7017),
    (sym_comparison_operator, STATE 7969), (sym_lambda, STATE 7969),
    (sym_assignment, STATE 12425), (sym_augmented_assignment, STATE 12425),
    (sym_pattern_list, STATE 8578), (sym_yield, STATE 12425), (sym_attribute, STATE 6796),
    (sym_subscript, STATE 6797), (sym_call, STATE 6768), (sym_type, STATE 10130),
    (sym_called_type, STATE 9093), (sym_function_type, STATE 9093), (sym_splat_type, STATE 9093),
    (sym_generic_type, STATE 8287), (sym_union_type, STATE 9093),
    (sym_intersection_type, STATE 9093), (sym__intersection_operand, STATE 12294),
    (sym_constrained_type, STATE 9093), (sym_member_type, STATE 8165),
    (sym_mlir_type, STATE 7017), (sym_list, STATE 7017), (sym_set, STATE 7017),
    (sym_tuple, STATE 7017), (sym_dictionary, STATE 7017), (sym_struct_literal, STATE 7017),
    (sym_list_comprehension, STATE 7017), (sym_dictionary_comprehension, STATE 7017),
    (sym_set_comprehension, STATE 7017), (sym_generator_expression, STATE 7017),
    (sym_parenthesized_expression, STATE 7017), (sym_conditional_expression, STATE 7969),
    (sym_concatenated_string, STATE 7017), (sym_string, STATE 6729), (sym_await, STATE 7017),
    (sym_identifier, ACTIONS 327), (anon_sym_import, ACTIONS 11), (anon_sym_from, ACTIONS 13),
    (anon_sym_LPAREN, ACTIONS 329), (anon_sym_STAR, ACTIONS 331), (anon_sym_print, ACTIONS 333),
    (anon_sym_comptime, ACTIONS 335), (anon_sym_assert, ACTIONS 23),
    (anon_sym___comptime_assert, ACTIONS 25), (anon_sym_return, ACTIONS 27),
    (anon_sym_del, ACTIONS 29), (anon_sym_raise, ACTIONS 31), (anon_sym_pass, ACTIONS 33),
    (anon_sym_break, ACTIONS 35), (anon_sym_continue, ACTIONS 37), (anon_sym_match, ACTIONS 337),
    (anon_sym_async, ACTIONS 339), (anon_sym_def, ACTIONS 341), (anon_sym_LBRACK, ACTIONS 343),
    (anon_sym_LBRACE, ACTIONS 61), (anon_sym_STAR_STAR, ACTIONS 345),
    (anon_sym_global, ACTIONS 63), (anon_sym_nonlocal, ACTIONS 65), (anon_sym_exec, ACTIONS 347),
    (anon_sym_type, ACTIONS 349), (anon_sym_mut, ACTIONS 339), (anon_sym_out, ACTIONS 339),
    (anon_sym_DASH, ACTIONS 79), (anon_sym_PLUS, ACTIONS 79), (anon_sym_ref, ACTIONS 81),
    (anon_sym_var, ACTIONS 81), (anon_sym_not, ACTIONS 83), (anon_sym_TILDE, ACTIONS 79),
    (anon_sym_lambda, ACTIONS 85), (anon_sym_yield, ACTIONS 87), (sym_ellipsis, ACTIONS 89),
    (anon_sym___mlir_type, ACTIONS 91), (sym_integer, ACTIONS 93), (sym_float, ACTIONS 89),
    (anon_sym_await, ACTIONS 351), (sym_true, ACTIONS 93), (sym_false, ACTIONS 93),
    (sym_none, ACTIONS 93), (sym_comment, ACTIONS 3), (sym_line_continuation, ACTIONS 3),
    (sym__newline, ACTIONS 1005), (sym__indent, ACTIONS 1007), (sym_string_start, ACTIONS 97)]"

definition parse_table_1093 :: "(nat \<times> nat) list" where "parse_table_1093 = [
    (sym__simple_statements, STATE 6093), (sym_import_statement, STATE 12239),
    (sym_future_import_statement, STATE 12239), (sym_import_from_statement, STATE 12239),
    (sym_print_statement, STATE 12239), (sym_assert_statement, STATE 12239),
    (sym_comptime_assert_statement, STATE 12239), (sym_expression_statement, STATE 12239),
    (sym_tuple_expression, STATE 12425), (sym_named_expression, STATE 7969),
    (sym__named_expression_lhs, STATE 12752), (sym_return_statement, STATE 12239),
    (sym_delete_statement, STATE 12239), (sym_raise_statement, STATE 12239),
    (sym_pass_statement, STATE 12239), (sym_break_statement, STATE 12239),
    (sym_continue_statement, STATE 12239), (sym_global_statement, STATE 12239),
    (sym_nonlocal_statement, STATE 12239), (sym_exec_statement, STATE 12239),
    (sym_type_alias_statement, STATE 12239), (sym_parameterized_alias_statement, STATE 12239),
    (sym_pattern, STATE 8086), (sym_tuple_pattern, STATE 8101), (sym_list_pattern, STATE 8101),
    (sym_list_splat_pattern, STATE 6795), (sym_as_pattern, STATE 7969),
    (sym_expression, STATE 9623), (sym_primary_expression, STATE 7326),
    (sym_comptime_expression, STATE 7017), (sym_transfer_expression, STATE 7017),
    (sym_not_operator, STATE 7969), (sym_boolean_operator, STATE 7969),
    (sym_binary_operator, STATE 7017), (sym_unary_operator, STATE 7017),
    (sym_comparison_operator, STATE 7969), (sym_lambda, STATE 7969),
    (sym_assignment, STATE 12425), (sym_augmented_assignment, STATE 12425),
    (sym_pattern_list, STATE 8578), (sym_yield, STATE 12425), (sym_attribute, STATE 6796),
    (sym_subscript, STATE 6797), (sym_call, STATE 6768), (sym_type, STATE 10130),
    (sym_called_type, STATE 9093), (sym_function_type, STATE 9093), (sym_splat_type, STATE 9093),
    (sym_generic_type, STATE 8287), (sym_union_type, STATE 9093),
    (sym_intersection_type, STATE 9093), (sym__intersection_operand, STATE 12294),
    (sym_constrained_type, STATE 9093), (sym_member_type, STATE 8165),
    (sym_mlir_type, STATE 7017), (sym_list, STATE 7017), (sym_set, STATE 7017),
    (sym_tuple, STATE 7017), (sym_dictionary, STATE 7017), (sym_struct_literal, STATE 7017),
    (sym_list_comprehension, STATE 7017), (sym_dictionary_comprehension, STATE 7017),
    (sym_set_comprehension, STATE 7017), (sym_generator_expression, STATE 7017),
    (sym_parenthesized_expression, STATE 7017), (sym_conditional_expression, STATE 7969),
    (sym_concatenated_string, STATE 7017), (sym_string, STATE 6729), (sym_await, STATE 7017),
    (sym_identifier, ACTIONS 327), (anon_sym_import, ACTIONS 11), (anon_sym_from, ACTIONS 13),
    (anon_sym_LPAREN, ACTIONS 329), (anon_sym_STAR, ACTIONS 331), (anon_sym_print, ACTIONS 333),
    (anon_sym_comptime, ACTIONS 335), (anon_sym_assert, ACTIONS 23),
    (anon_sym___comptime_assert, ACTIONS 25), (anon_sym_return, ACTIONS 27),
    (anon_sym_del, ACTIONS 29), (anon_sym_raise, ACTIONS 31), (anon_sym_pass, ACTIONS 33),
    (anon_sym_break, ACTIONS 35), (anon_sym_continue, ACTIONS 37), (anon_sym_match, ACTIONS 337),
    (anon_sym_async, ACTIONS 339), (anon_sym_def, ACTIONS 341), (anon_sym_LBRACK, ACTIONS 343),
    (anon_sym_LBRACE, ACTIONS 61), (anon_sym_STAR_STAR, ACTIONS 345),
    (anon_sym_global, ACTIONS 63), (anon_sym_nonlocal, ACTIONS 65), (anon_sym_exec, ACTIONS 347),
    (anon_sym_type, ACTIONS 349), (anon_sym_mut, ACTIONS 339), (anon_sym_out, ACTIONS 339),
    (anon_sym_DASH, ACTIONS 79), (anon_sym_PLUS, ACTIONS 79), (anon_sym_ref, ACTIONS 81),
    (anon_sym_var, ACTIONS 81), (anon_sym_not, ACTIONS 83), (anon_sym_TILDE, ACTIONS 79),
    (anon_sym_lambda, ACTIONS 85), (anon_sym_yield, ACTIONS 87), (sym_ellipsis, ACTIONS 89),
    (anon_sym___mlir_type, ACTIONS 91), (sym_integer, ACTIONS 93), (sym_float, ACTIONS 89),
    (anon_sym_await, ACTIONS 351), (sym_true, ACTIONS 93), (sym_false, ACTIONS 93),
    (sym_none, ACTIONS 93), (sym_comment, ACTIONS 3), (sym_line_continuation, ACTIONS 3),
    (sym__newline, ACTIONS 1009), (sym__indent, ACTIONS 1011), (sym_string_start, ACTIONS 97)]"

definition parse_table_1094 :: "(nat \<times> nat) list" where "parse_table_1094 = [
    (sym__simple_statements, STATE 6102), (sym_import_statement, STATE 12239),
    (sym_future_import_statement, STATE 12239), (sym_import_from_statement, STATE 12239),
    (sym_print_statement, STATE 12239), (sym_assert_statement, STATE 12239),
    (sym_comptime_assert_statement, STATE 12239), (sym_expression_statement, STATE 12239),
    (sym_tuple_expression, STATE 12425), (sym_named_expression, STATE 7969),
    (sym__named_expression_lhs, STATE 12752), (sym_return_statement, STATE 12239),
    (sym_delete_statement, STATE 12239), (sym_raise_statement, STATE 12239),
    (sym_pass_statement, STATE 12239), (sym_break_statement, STATE 12239),
    (sym_continue_statement, STATE 12239), (sym_global_statement, STATE 12239),
    (sym_nonlocal_statement, STATE 12239), (sym_exec_statement, STATE 12239),
    (sym_type_alias_statement, STATE 12239), (sym_parameterized_alias_statement, STATE 12239),
    (sym_pattern, STATE 8086), (sym_tuple_pattern, STATE 8101), (sym_list_pattern, STATE 8101),
    (sym_list_splat_pattern, STATE 6795), (sym_as_pattern, STATE 7969),
    (sym_expression, STATE 9623), (sym_primary_expression, STATE 7326),
    (sym_comptime_expression, STATE 7017), (sym_transfer_expression, STATE 7017),
    (sym_not_operator, STATE 7969), (sym_boolean_operator, STATE 7969),
    (sym_binary_operator, STATE 7017), (sym_unary_operator, STATE 7017),
    (sym_comparison_operator, STATE 7969), (sym_lambda, STATE 7969),
    (sym_assignment, STATE 12425), (sym_augmented_assignment, STATE 12425),
    (sym_pattern_list, STATE 8578), (sym_yield, STATE 12425), (sym_attribute, STATE 6796),
    (sym_subscript, STATE 6797), (sym_call, STATE 6768), (sym_type, STATE 10130),
    (sym_called_type, STATE 9093), (sym_function_type, STATE 9093), (sym_splat_type, STATE 9093),
    (sym_generic_type, STATE 8287), (sym_union_type, STATE 9093),
    (sym_intersection_type, STATE 9093), (sym__intersection_operand, STATE 12294),
    (sym_constrained_type, STATE 9093), (sym_member_type, STATE 8165),
    (sym_mlir_type, STATE 7017), (sym_list, STATE 7017), (sym_set, STATE 7017),
    (sym_tuple, STATE 7017), (sym_dictionary, STATE 7017), (sym_struct_literal, STATE 7017),
    (sym_list_comprehension, STATE 7017), (sym_dictionary_comprehension, STATE 7017),
    (sym_set_comprehension, STATE 7017), (sym_generator_expression, STATE 7017),
    (sym_parenthesized_expression, STATE 7017), (sym_conditional_expression, STATE 7969),
    (sym_concatenated_string, STATE 7017), (sym_string, STATE 6729), (sym_await, STATE 7017),
    (sym_identifier, ACTIONS 327), (anon_sym_import, ACTIONS 11), (anon_sym_from, ACTIONS 13),
    (anon_sym_LPAREN, ACTIONS 329), (anon_sym_STAR, ACTIONS 331), (anon_sym_print, ACTIONS 333),
    (anon_sym_comptime, ACTIONS 335), (anon_sym_assert, ACTIONS 23),
    (anon_sym___comptime_assert, ACTIONS 25), (anon_sym_return, ACTIONS 27),
    (anon_sym_del, ACTIONS 29), (anon_sym_raise, ACTIONS 31), (anon_sym_pass, ACTIONS 33),
    (anon_sym_break, ACTIONS 35), (anon_sym_continue, ACTIONS 37), (anon_sym_match, ACTIONS 337),
    (anon_sym_async, ACTIONS 339), (anon_sym_def, ACTIONS 341), (anon_sym_LBRACK, ACTIONS 343),
    (anon_sym_LBRACE, ACTIONS 61), (anon_sym_STAR_STAR, ACTIONS 345),
    (anon_sym_global, ACTIONS 63), (anon_sym_nonlocal, ACTIONS 65), (anon_sym_exec, ACTIONS 347),
    (anon_sym_type, ACTIONS 349), (anon_sym_mut, ACTIONS 339), (anon_sym_out, ACTIONS 339),
    (anon_sym_DASH, ACTIONS 79), (anon_sym_PLUS, ACTIONS 79), (anon_sym_ref, ACTIONS 81),
    (anon_sym_var, ACTIONS 81), (anon_sym_not, ACTIONS 83), (anon_sym_TILDE, ACTIONS 79),
    (anon_sym_lambda, ACTIONS 85), (anon_sym_yield, ACTIONS 87), (sym_ellipsis, ACTIONS 89),
    (anon_sym___mlir_type, ACTIONS 91), (sym_integer, ACTIONS 93), (sym_float, ACTIONS 89),
    (anon_sym_await, ACTIONS 351), (sym_true, ACTIONS 93), (sym_false, ACTIONS 93),
    (sym_none, ACTIONS 93), (sym_comment, ACTIONS 3), (sym_line_continuation, ACTIONS 3),
    (sym__newline, ACTIONS 1013), (sym__indent, ACTIONS 1015), (sym_string_start, ACTIONS 97)]"

definition parse_table_1095 :: "(nat \<times> nat) list" where "parse_table_1095 = [
    (sym__simple_statements, STATE 4586), (sym_import_statement, STATE 12239),
    (sym_future_import_statement, STATE 12239), (sym_import_from_statement, STATE 12239),
    (sym_print_statement, STATE 12239), (sym_assert_statement, STATE 12239),
    (sym_comptime_assert_statement, STATE 12239), (sym_expression_statement, STATE 12239),
    (sym_tuple_expression, STATE 12425), (sym_named_expression, STATE 7969),
    (sym__named_expression_lhs, STATE 12752), (sym_return_statement, STATE 12239),
    (sym_delete_statement, STATE 12239), (sym_raise_statement, STATE 12239),
    (sym_pass_statement, STATE 12239), (sym_break_statement, STATE 12239),
    (sym_continue_statement, STATE 12239), (sym_global_statement, STATE 12239),
    (sym_nonlocal_statement, STATE 12239), (sym_exec_statement, STATE 12239),
    (sym_type_alias_statement, STATE 12239), (sym_parameterized_alias_statement, STATE 12239),
    (sym_pattern, STATE 8086), (sym_tuple_pattern, STATE 8101), (sym_list_pattern, STATE 8101),
    (sym_list_splat_pattern, STATE 6795), (sym_as_pattern, STATE 7969),
    (sym_expression, STATE 9623), (sym_primary_expression, STATE 7326),
    (sym_comptime_expression, STATE 7017), (sym_transfer_expression, STATE 7017),
    (sym_not_operator, STATE 7969), (sym_boolean_operator, STATE 7969),
    (sym_binary_operator, STATE 7017), (sym_unary_operator, STATE 7017),
    (sym_comparison_operator, STATE 7969), (sym_lambda, STATE 7969),
    (sym_assignment, STATE 12425), (sym_augmented_assignment, STATE 12425),
    (sym_pattern_list, STATE 8578), (sym_yield, STATE 12425), (sym_attribute, STATE 6796),
    (sym_subscript, STATE 6797), (sym_call, STATE 6768), (sym_type, STATE 10130),
    (sym_called_type, STATE 9093), (sym_function_type, STATE 9093), (sym_splat_type, STATE 9093),
    (sym_generic_type, STATE 8287), (sym_union_type, STATE 9093),
    (sym_intersection_type, STATE 9093), (sym__intersection_operand, STATE 12294),
    (sym_constrained_type, STATE 9093), (sym_member_type, STATE 8165),
    (sym_mlir_type, STATE 7017), (sym_list, STATE 7017), (sym_set, STATE 7017),
    (sym_tuple, STATE 7017), (sym_dictionary, STATE 7017), (sym_struct_literal, STATE 7017),
    (sym_list_comprehension, STATE 7017), (sym_dictionary_comprehension, STATE 7017),
    (sym_set_comprehension, STATE 7017), (sym_generator_expression, STATE 7017),
    (sym_parenthesized_expression, STATE 7017), (sym_conditional_expression, STATE 7969),
    (sym_concatenated_string, STATE 7017), (sym_string, STATE 6729), (sym_await, STATE 7017),
    (sym_identifier, ACTIONS 327), (anon_sym_import, ACTIONS 11), (anon_sym_from, ACTIONS 13),
    (anon_sym_LPAREN, ACTIONS 329), (anon_sym_STAR, ACTIONS 331), (anon_sym_print, ACTIONS 333),
    (anon_sym_comptime, ACTIONS 335), (anon_sym_assert, ACTIONS 23),
    (anon_sym___comptime_assert, ACTIONS 25), (anon_sym_return, ACTIONS 27),
    (anon_sym_del, ACTIONS 29), (anon_sym_raise, ACTIONS 31), (anon_sym_pass, ACTIONS 33),
    (anon_sym_break, ACTIONS 35), (anon_sym_continue, ACTIONS 37), (anon_sym_match, ACTIONS 337),
    (anon_sym_async, ACTIONS 339), (anon_sym_def, ACTIONS 341), (anon_sym_LBRACK, ACTIONS 343),
    (anon_sym_LBRACE, ACTIONS 61), (anon_sym_STAR_STAR, ACTIONS 345),
    (anon_sym_global, ACTIONS 63), (anon_sym_nonlocal, ACTIONS 65), (anon_sym_exec, ACTIONS 347),
    (anon_sym_type, ACTIONS 349), (anon_sym_mut, ACTIONS 339), (anon_sym_out, ACTIONS 339),
    (anon_sym_DASH, ACTIONS 79), (anon_sym_PLUS, ACTIONS 79), (anon_sym_ref, ACTIONS 81),
    (anon_sym_var, ACTIONS 81), (anon_sym_not, ACTIONS 83), (anon_sym_TILDE, ACTIONS 79),
    (anon_sym_lambda, ACTIONS 85), (anon_sym_yield, ACTIONS 87), (sym_ellipsis, ACTIONS 89),
    (anon_sym___mlir_type, ACTIONS 91), (sym_integer, ACTIONS 93), (sym_float, ACTIONS 89),
    (anon_sym_await, ACTIONS 351), (sym_true, ACTIONS 93), (sym_false, ACTIONS 93),
    (sym_none, ACTIONS 93), (sym_comment, ACTIONS 3), (sym_line_continuation, ACTIONS 3),
    (sym__newline, ACTIONS 1017), (sym__indent, ACTIONS 1019), (sym_string_start, ACTIONS 97)]"

definition parse_table_1096 :: "(nat \<times> nat) list" where "parse_table_1096 = [
    (sym__simple_statements, STATE 5546), (sym_import_statement, STATE 12239),
    (sym_future_import_statement, STATE 12239), (sym_import_from_statement, STATE 12239),
    (sym_print_statement, STATE 12239), (sym_assert_statement, STATE 12239),
    (sym_comptime_assert_statement, STATE 12239), (sym_expression_statement, STATE 12239),
    (sym_tuple_expression, STATE 12425), (sym_named_expression, STATE 7969),
    (sym__named_expression_lhs, STATE 12752), (sym_return_statement, STATE 12239),
    (sym_delete_statement, STATE 12239), (sym_raise_statement, STATE 12239),
    (sym_pass_statement, STATE 12239), (sym_break_statement, STATE 12239),
    (sym_continue_statement, STATE 12239), (sym_global_statement, STATE 12239),
    (sym_nonlocal_statement, STATE 12239), (sym_exec_statement, STATE 12239),
    (sym_type_alias_statement, STATE 12239), (sym_parameterized_alias_statement, STATE 12239),
    (sym_pattern, STATE 8086), (sym_tuple_pattern, STATE 8101), (sym_list_pattern, STATE 8101),
    (sym_list_splat_pattern, STATE 6795), (sym_as_pattern, STATE 7969),
    (sym_expression, STATE 9623), (sym_primary_expression, STATE 7326),
    (sym_comptime_expression, STATE 7017), (sym_transfer_expression, STATE 7017),
    (sym_not_operator, STATE 7969), (sym_boolean_operator, STATE 7969),
    (sym_binary_operator, STATE 7017), (sym_unary_operator, STATE 7017),
    (sym_comparison_operator, STATE 7969), (sym_lambda, STATE 7969),
    (sym_assignment, STATE 12425), (sym_augmented_assignment, STATE 12425),
    (sym_pattern_list, STATE 8578), (sym_yield, STATE 12425), (sym_attribute, STATE 6796),
    (sym_subscript, STATE 6797), (sym_call, STATE 6768), (sym_type, STATE 10130),
    (sym_called_type, STATE 9093), (sym_function_type, STATE 9093), (sym_splat_type, STATE 9093),
    (sym_generic_type, STATE 8287), (sym_union_type, STATE 9093),
    (sym_intersection_type, STATE 9093), (sym__intersection_operand, STATE 12294),
    (sym_constrained_type, STATE 9093), (sym_member_type, STATE 8165),
    (sym_mlir_type, STATE 7017), (sym_list, STATE 7017), (sym_set, STATE 7017),
    (sym_tuple, STATE 7017), (sym_dictionary, STATE 7017), (sym_struct_literal, STATE 7017),
    (sym_list_comprehension, STATE 7017), (sym_dictionary_comprehension, STATE 7017),
    (sym_set_comprehension, STATE 7017), (sym_generator_expression, STATE 7017),
    (sym_parenthesized_expression, STATE 7017), (sym_conditional_expression, STATE 7969),
    (sym_concatenated_string, STATE 7017), (sym_string, STATE 6729), (sym_await, STATE 7017),
    (sym_identifier, ACTIONS 327), (anon_sym_import, ACTIONS 11), (anon_sym_from, ACTIONS 13),
    (anon_sym_LPAREN, ACTIONS 329), (anon_sym_STAR, ACTIONS 331), (anon_sym_print, ACTIONS 333),
    (anon_sym_comptime, ACTIONS 335), (anon_sym_assert, ACTIONS 23),
    (anon_sym___comptime_assert, ACTIONS 25), (anon_sym_return, ACTIONS 27),
    (anon_sym_del, ACTIONS 29), (anon_sym_raise, ACTIONS 31), (anon_sym_pass, ACTIONS 33),
    (anon_sym_break, ACTIONS 35), (anon_sym_continue, ACTIONS 37), (anon_sym_match, ACTIONS 337),
    (anon_sym_async, ACTIONS 339), (anon_sym_def, ACTIONS 341), (anon_sym_LBRACK, ACTIONS 343),
    (anon_sym_LBRACE, ACTIONS 61), (anon_sym_STAR_STAR, ACTIONS 345),
    (anon_sym_global, ACTIONS 63), (anon_sym_nonlocal, ACTIONS 65), (anon_sym_exec, ACTIONS 347),
    (anon_sym_type, ACTIONS 349), (anon_sym_mut, ACTIONS 339), (anon_sym_out, ACTIONS 339),
    (anon_sym_DASH, ACTIONS 79), (anon_sym_PLUS, ACTIONS 79), (anon_sym_ref, ACTIONS 81),
    (anon_sym_var, ACTIONS 81), (anon_sym_not, ACTIONS 83), (anon_sym_TILDE, ACTIONS 79),
    (anon_sym_lambda, ACTIONS 85), (anon_sym_yield, ACTIONS 87), (sym_ellipsis, ACTIONS 89),
    (anon_sym___mlir_type, ACTIONS 91), (sym_integer, ACTIONS 93), (sym_float, ACTIONS 89),
    (anon_sym_await, ACTIONS 351), (sym_true, ACTIONS 93), (sym_false, ACTIONS 93),
    (sym_none, ACTIONS 93), (sym_comment, ACTIONS 3), (sym_line_continuation, ACTIONS 3),
    (sym__newline, ACTIONS 1021), (sym__indent, ACTIONS 1023), (sym_string_start, ACTIONS 97)]"

definition parse_table_1097 :: "(nat \<times> nat) list" where "parse_table_1097 = [
    (sym__simple_statements, STATE 6118), (sym_import_statement, STATE 12239),
    (sym_future_import_statement, STATE 12239), (sym_import_from_statement, STATE 12239),
    (sym_print_statement, STATE 12239), (sym_assert_statement, STATE 12239),
    (sym_comptime_assert_statement, STATE 12239), (sym_expression_statement, STATE 12239),
    (sym_tuple_expression, STATE 12425), (sym_named_expression, STATE 7969),
    (sym__named_expression_lhs, STATE 12752), (sym_return_statement, STATE 12239),
    (sym_delete_statement, STATE 12239), (sym_raise_statement, STATE 12239),
    (sym_pass_statement, STATE 12239), (sym_break_statement, STATE 12239),
    (sym_continue_statement, STATE 12239), (sym_global_statement, STATE 12239),
    (sym_nonlocal_statement, STATE 12239), (sym_exec_statement, STATE 12239),
    (sym_type_alias_statement, STATE 12239), (sym_parameterized_alias_statement, STATE 12239),
    (sym_pattern, STATE 8086), (sym_tuple_pattern, STATE 8101), (sym_list_pattern, STATE 8101),
    (sym_list_splat_pattern, STATE 6795), (sym_as_pattern, STATE 7969),
    (sym_expression, STATE 9623), (sym_primary_expression, STATE 7326),
    (sym_comptime_expression, STATE 7017), (sym_transfer_expression, STATE 7017),
    (sym_not_operator, STATE 7969), (sym_boolean_operator, STATE 7969),
    (sym_binary_operator, STATE 7017), (sym_unary_operator, STATE 7017),
    (sym_comparison_operator, STATE 7969), (sym_lambda, STATE 7969),
    (sym_assignment, STATE 12425), (sym_augmented_assignment, STATE 12425),
    (sym_pattern_list, STATE 8578), (sym_yield, STATE 12425), (sym_attribute, STATE 6796),
    (sym_subscript, STATE 6797), (sym_call, STATE 6768), (sym_type, STATE 10130),
    (sym_called_type, STATE 9093), (sym_function_type, STATE 9093), (sym_splat_type, STATE 9093),
    (sym_generic_type, STATE 8287), (sym_union_type, STATE 9093),
    (sym_intersection_type, STATE 9093), (sym__intersection_operand, STATE 12294),
    (sym_constrained_type, STATE 9093), (sym_member_type, STATE 8165),
    (sym_mlir_type, STATE 7017), (sym_list, STATE 7017), (sym_set, STATE 7017),
    (sym_tuple, STATE 7017), (sym_dictionary, STATE 7017), (sym_struct_literal, STATE 7017),
    (sym_list_comprehension, STATE 7017), (sym_dictionary_comprehension, STATE 7017),
    (sym_set_comprehension, STATE 7017), (sym_generator_expression, STATE 7017),
    (sym_parenthesized_expression, STATE 7017), (sym_conditional_expression, STATE 7969),
    (sym_concatenated_string, STATE 7017), (sym_string, STATE 6729), (sym_await, STATE 7017),
    (sym_identifier, ACTIONS 327), (anon_sym_import, ACTIONS 11), (anon_sym_from, ACTIONS 13),
    (anon_sym_LPAREN, ACTIONS 329), (anon_sym_STAR, ACTIONS 331), (anon_sym_print, ACTIONS 333),
    (anon_sym_comptime, ACTIONS 335), (anon_sym_assert, ACTIONS 23),
    (anon_sym___comptime_assert, ACTIONS 25), (anon_sym_return, ACTIONS 27),
    (anon_sym_del, ACTIONS 29), (anon_sym_raise, ACTIONS 31), (anon_sym_pass, ACTIONS 33),
    (anon_sym_break, ACTIONS 35), (anon_sym_continue, ACTIONS 37), (anon_sym_match, ACTIONS 337),
    (anon_sym_async, ACTIONS 339), (anon_sym_def, ACTIONS 341), (anon_sym_LBRACK, ACTIONS 343),
    (anon_sym_LBRACE, ACTIONS 61), (anon_sym_STAR_STAR, ACTIONS 345),
    (anon_sym_global, ACTIONS 63), (anon_sym_nonlocal, ACTIONS 65), (anon_sym_exec, ACTIONS 347),
    (anon_sym_type, ACTIONS 349), (anon_sym_mut, ACTIONS 339), (anon_sym_out, ACTIONS 339),
    (anon_sym_DASH, ACTIONS 79), (anon_sym_PLUS, ACTIONS 79), (anon_sym_ref, ACTIONS 81),
    (anon_sym_var, ACTIONS 81), (anon_sym_not, ACTIONS 83), (anon_sym_TILDE, ACTIONS 79),
    (anon_sym_lambda, ACTIONS 85), (anon_sym_yield, ACTIONS 87), (sym_ellipsis, ACTIONS 89),
    (anon_sym___mlir_type, ACTIONS 91), (sym_integer, ACTIONS 93), (sym_float, ACTIONS 89),
    (anon_sym_await, ACTIONS 351), (sym_true, ACTIONS 93), (sym_false, ACTIONS 93),
    (sym_none, ACTIONS 93), (sym_comment, ACTIONS 3), (sym_line_continuation, ACTIONS 3),
    (sym__newline, ACTIONS 1025), (sym__indent, ACTIONS 1027), (sym_string_start, ACTIONS 97)]"

definition parse_table_1098 :: "(nat \<times> nat) list" where "parse_table_1098 = [
    (sym__simple_statements, STATE 4902), (sym_import_statement, STATE 12239),
    (sym_future_import_statement, STATE 12239), (sym_import_from_statement, STATE 12239),
    (sym_print_statement, STATE 12239), (sym_assert_statement, STATE 12239),
    (sym_comptime_assert_statement, STATE 12239), (sym_expression_statement, STATE 12239),
    (sym_tuple_expression, STATE 12425), (sym_named_expression, STATE 7969),
    (sym__named_expression_lhs, STATE 12752), (sym_return_statement, STATE 12239),
    (sym_delete_statement, STATE 12239), (sym_raise_statement, STATE 12239),
    (sym_pass_statement, STATE 12239), (sym_break_statement, STATE 12239),
    (sym_continue_statement, STATE 12239), (sym_global_statement, STATE 12239),
    (sym_nonlocal_statement, STATE 12239), (sym_exec_statement, STATE 12239),
    (sym_type_alias_statement, STATE 12239), (sym_parameterized_alias_statement, STATE 12239),
    (sym_pattern, STATE 8086), (sym_tuple_pattern, STATE 8101), (sym_list_pattern, STATE 8101),
    (sym_list_splat_pattern, STATE 6795), (sym_as_pattern, STATE 7969),
    (sym_expression, STATE 9623), (sym_primary_expression, STATE 7326),
    (sym_comptime_expression, STATE 7017), (sym_transfer_expression, STATE 7017),
    (sym_not_operator, STATE 7969), (sym_boolean_operator, STATE 7969),
    (sym_binary_operator, STATE 7017), (sym_unary_operator, STATE 7017),
    (sym_comparison_operator, STATE 7969), (sym_lambda, STATE 7969),
    (sym_assignment, STATE 12425), (sym_augmented_assignment, STATE 12425),
    (sym_pattern_list, STATE 8578), (sym_yield, STATE 12425), (sym_attribute, STATE 6796),
    (sym_subscript, STATE 6797), (sym_call, STATE 6768), (sym_type, STATE 10130),
    (sym_called_type, STATE 9093), (sym_function_type, STATE 9093), (sym_splat_type, STATE 9093),
    (sym_generic_type, STATE 8287), (sym_union_type, STATE 9093),
    (sym_intersection_type, STATE 9093), (sym__intersection_operand, STATE 12294),
    (sym_constrained_type, STATE 9093), (sym_member_type, STATE 8165),
    (sym_mlir_type, STATE 7017), (sym_list, STATE 7017), (sym_set, STATE 7017),
    (sym_tuple, STATE 7017), (sym_dictionary, STATE 7017), (sym_struct_literal, STATE 7017),
    (sym_list_comprehension, STATE 7017), (sym_dictionary_comprehension, STATE 7017),
    (sym_set_comprehension, STATE 7017), (sym_generator_expression, STATE 7017),
    (sym_parenthesized_expression, STATE 7017), (sym_conditional_expression, STATE 7969),
    (sym_concatenated_string, STATE 7017), (sym_string, STATE 6729), (sym_await, STATE 7017),
    (sym_identifier, ACTIONS 327), (anon_sym_import, ACTIONS 11), (anon_sym_from, ACTIONS 13),
    (anon_sym_LPAREN, ACTIONS 329), (anon_sym_STAR, ACTIONS 331), (anon_sym_print, ACTIONS 333),
    (anon_sym_comptime, ACTIONS 335), (anon_sym_assert, ACTIONS 23),
    (anon_sym___comptime_assert, ACTIONS 25), (anon_sym_return, ACTIONS 27),
    (anon_sym_del, ACTIONS 29), (anon_sym_raise, ACTIONS 31), (anon_sym_pass, ACTIONS 33),
    (anon_sym_break, ACTIONS 35), (anon_sym_continue, ACTIONS 37), (anon_sym_match, ACTIONS 337),
    (anon_sym_async, ACTIONS 339), (anon_sym_def, ACTIONS 341), (anon_sym_LBRACK, ACTIONS 343),
    (anon_sym_LBRACE, ACTIONS 61), (anon_sym_STAR_STAR, ACTIONS 345),
    (anon_sym_global, ACTIONS 63), (anon_sym_nonlocal, ACTIONS 65), (anon_sym_exec, ACTIONS 347),
    (anon_sym_type, ACTIONS 349), (anon_sym_mut, ACTIONS 339), (anon_sym_out, ACTIONS 339),
    (anon_sym_DASH, ACTIONS 79), (anon_sym_PLUS, ACTIONS 79), (anon_sym_ref, ACTIONS 81),
    (anon_sym_var, ACTIONS 81), (anon_sym_not, ACTIONS 83), (anon_sym_TILDE, ACTIONS 79),
    (anon_sym_lambda, ACTIONS 85), (anon_sym_yield, ACTIONS 87), (sym_ellipsis, ACTIONS 89),
    (anon_sym___mlir_type, ACTIONS 91), (sym_integer, ACTIONS 93), (sym_float, ACTIONS 89),
    (anon_sym_await, ACTIONS 351), (sym_true, ACTIONS 93), (sym_false, ACTIONS 93),
    (sym_none, ACTIONS 93), (sym_comment, ACTIONS 3), (sym_line_continuation, ACTIONS 3),
    (sym__newline, ACTIONS 1029), (sym__indent, ACTIONS 1031), (sym_string_start, ACTIONS 97)]"

definition parse_table_1099 :: "(nat \<times> nat) list" where "parse_table_1099 = [
    (sym__simple_statements, STATE 5408), (sym_import_statement, STATE 12239),
    (sym_future_import_statement, STATE 12239), (sym_import_from_statement, STATE 12239),
    (sym_print_statement, STATE 12239), (sym_assert_statement, STATE 12239),
    (sym_comptime_assert_statement, STATE 12239), (sym_expression_statement, STATE 12239),
    (sym_tuple_expression, STATE 12425), (sym_named_expression, STATE 7969),
    (sym__named_expression_lhs, STATE 12752), (sym_return_statement, STATE 12239),
    (sym_delete_statement, STATE 12239), (sym_raise_statement, STATE 12239),
    (sym_pass_statement, STATE 12239), (sym_break_statement, STATE 12239),
    (sym_continue_statement, STATE 12239), (sym_global_statement, STATE 12239),
    (sym_nonlocal_statement, STATE 12239), (sym_exec_statement, STATE 12239),
    (sym_type_alias_statement, STATE 12239), (sym_parameterized_alias_statement, STATE 12239),
    (sym_pattern, STATE 8086), (sym_tuple_pattern, STATE 8101), (sym_list_pattern, STATE 8101),
    (sym_list_splat_pattern, STATE 6795), (sym_as_pattern, STATE 7969),
    (sym_expression, STATE 9623), (sym_primary_expression, STATE 7326),
    (sym_comptime_expression, STATE 7017), (sym_transfer_expression, STATE 7017),
    (sym_not_operator, STATE 7969), (sym_boolean_operator, STATE 7969),
    (sym_binary_operator, STATE 7017), (sym_unary_operator, STATE 7017),
    (sym_comparison_operator, STATE 7969), (sym_lambda, STATE 7969),
    (sym_assignment, STATE 12425), (sym_augmented_assignment, STATE 12425),
    (sym_pattern_list, STATE 8578), (sym_yield, STATE 12425), (sym_attribute, STATE 6796),
    (sym_subscript, STATE 6797), (sym_call, STATE 6768), (sym_type, STATE 10130),
    (sym_called_type, STATE 9093), (sym_function_type, STATE 9093), (sym_splat_type, STATE 9093),
    (sym_generic_type, STATE 8287), (sym_union_type, STATE 9093),
    (sym_intersection_type, STATE 9093), (sym__intersection_operand, STATE 12294),
    (sym_constrained_type, STATE 9093), (sym_member_type, STATE 8165),
    (sym_mlir_type, STATE 7017), (sym_list, STATE 7017), (sym_set, STATE 7017),
    (sym_tuple, STATE 7017), (sym_dictionary, STATE 7017), (sym_struct_literal, STATE 7017),
    (sym_list_comprehension, STATE 7017), (sym_dictionary_comprehension, STATE 7017),
    (sym_set_comprehension, STATE 7017), (sym_generator_expression, STATE 7017),
    (sym_parenthesized_expression, STATE 7017), (sym_conditional_expression, STATE 7969),
    (sym_concatenated_string, STATE 7017), (sym_string, STATE 6729), (sym_await, STATE 7017),
    (sym_identifier, ACTIONS 327), (anon_sym_import, ACTIONS 11), (anon_sym_from, ACTIONS 13),
    (anon_sym_LPAREN, ACTIONS 329), (anon_sym_STAR, ACTIONS 331), (anon_sym_print, ACTIONS 333),
    (anon_sym_comptime, ACTIONS 335), (anon_sym_assert, ACTIONS 23),
    (anon_sym___comptime_assert, ACTIONS 25), (anon_sym_return, ACTIONS 27),
    (anon_sym_del, ACTIONS 29), (anon_sym_raise, ACTIONS 31), (anon_sym_pass, ACTIONS 33),
    (anon_sym_break, ACTIONS 35), (anon_sym_continue, ACTIONS 37), (anon_sym_match, ACTIONS 337),
    (anon_sym_async, ACTIONS 339), (anon_sym_def, ACTIONS 341), (anon_sym_LBRACK, ACTIONS 343),
    (anon_sym_LBRACE, ACTIONS 61), (anon_sym_STAR_STAR, ACTIONS 345),
    (anon_sym_global, ACTIONS 63), (anon_sym_nonlocal, ACTIONS 65), (anon_sym_exec, ACTIONS 347),
    (anon_sym_type, ACTIONS 349), (anon_sym_mut, ACTIONS 339), (anon_sym_out, ACTIONS 339),
    (anon_sym_DASH, ACTIONS 79), (anon_sym_PLUS, ACTIONS 79), (anon_sym_ref, ACTIONS 81),
    (anon_sym_var, ACTIONS 81), (anon_sym_not, ACTIONS 83), (anon_sym_TILDE, ACTIONS 79),
    (anon_sym_lambda, ACTIONS 85), (anon_sym_yield, ACTIONS 87), (sym_ellipsis, ACTIONS 89),
    (anon_sym___mlir_type, ACTIONS 91), (sym_integer, ACTIONS 93), (sym_float, ACTIONS 89),
    (anon_sym_await, ACTIONS 351), (sym_true, ACTIONS 93), (sym_false, ACTIONS 93),
    (sym_none, ACTIONS 93), (sym_comment, ACTIONS 3), (sym_line_continuation, ACTIONS 3),
    (sym__newline, ACTIONS 1033), (sym__indent, ACTIONS 1035), (sym_string_start, ACTIONS 97)]"

definition parse_table_1100 :: "(nat \<times> nat) list" where "parse_table_1100 = [
    (sym__simple_statements, STATE 5551), (sym_import_statement, STATE 12239),
    (sym_future_import_statement, STATE 12239), (sym_import_from_statement, STATE 12239),
    (sym_print_statement, STATE 12239), (sym_assert_statement, STATE 12239),
    (sym_comptime_assert_statement, STATE 12239), (sym_expression_statement, STATE 12239),
    (sym_tuple_expression, STATE 12425), (sym_named_expression, STATE 7969),
    (sym__named_expression_lhs, STATE 12752), (sym_return_statement, STATE 12239),
    (sym_delete_statement, STATE 12239), (sym_raise_statement, STATE 12239),
    (sym_pass_statement, STATE 12239), (sym_break_statement, STATE 12239),
    (sym_continue_statement, STATE 12239), (sym_global_statement, STATE 12239),
    (sym_nonlocal_statement, STATE 12239), (sym_exec_statement, STATE 12239),
    (sym_type_alias_statement, STATE 12239), (sym_parameterized_alias_statement, STATE 12239),
    (sym_pattern, STATE 8086), (sym_tuple_pattern, STATE 8101), (sym_list_pattern, STATE 8101),
    (sym_list_splat_pattern, STATE 6795), (sym_as_pattern, STATE 7969),
    (sym_expression, STATE 9623), (sym_primary_expression, STATE 7326),
    (sym_comptime_expression, STATE 7017), (sym_transfer_expression, STATE 7017),
    (sym_not_operator, STATE 7969), (sym_boolean_operator, STATE 7969),
    (sym_binary_operator, STATE 7017), (sym_unary_operator, STATE 7017),
    (sym_comparison_operator, STATE 7969), (sym_lambda, STATE 7969),
    (sym_assignment, STATE 12425), (sym_augmented_assignment, STATE 12425),
    (sym_pattern_list, STATE 8578), (sym_yield, STATE 12425), (sym_attribute, STATE 6796),
    (sym_subscript, STATE 6797), (sym_call, STATE 6768), (sym_type, STATE 10130),
    (sym_called_type, STATE 9093), (sym_function_type, STATE 9093), (sym_splat_type, STATE 9093),
    (sym_generic_type, STATE 8287), (sym_union_type, STATE 9093),
    (sym_intersection_type, STATE 9093), (sym__intersection_operand, STATE 12294),
    (sym_constrained_type, STATE 9093), (sym_member_type, STATE 8165),
    (sym_mlir_type, STATE 7017), (sym_list, STATE 7017), (sym_set, STATE 7017),
    (sym_tuple, STATE 7017), (sym_dictionary, STATE 7017), (sym_struct_literal, STATE 7017),
    (sym_list_comprehension, STATE 7017), (sym_dictionary_comprehension, STATE 7017),
    (sym_set_comprehension, STATE 7017), (sym_generator_expression, STATE 7017),
    (sym_parenthesized_expression, STATE 7017), (sym_conditional_expression, STATE 7969),
    (sym_concatenated_string, STATE 7017), (sym_string, STATE 6729), (sym_await, STATE 7017),
    (sym_identifier, ACTIONS 327), (anon_sym_import, ACTIONS 11), (anon_sym_from, ACTIONS 13),
    (anon_sym_LPAREN, ACTIONS 329), (anon_sym_STAR, ACTIONS 331), (anon_sym_print, ACTIONS 333),
    (anon_sym_comptime, ACTIONS 335), (anon_sym_assert, ACTIONS 23),
    (anon_sym___comptime_assert, ACTIONS 25), (anon_sym_return, ACTIONS 27),
    (anon_sym_del, ACTIONS 29), (anon_sym_raise, ACTIONS 31), (anon_sym_pass, ACTIONS 33),
    (anon_sym_break, ACTIONS 35), (anon_sym_continue, ACTIONS 37), (anon_sym_match, ACTIONS 337),
    (anon_sym_async, ACTIONS 339), (anon_sym_def, ACTIONS 341), (anon_sym_LBRACK, ACTIONS 343),
    (anon_sym_LBRACE, ACTIONS 61), (anon_sym_STAR_STAR, ACTIONS 345),
    (anon_sym_global, ACTIONS 63), (anon_sym_nonlocal, ACTIONS 65), (anon_sym_exec, ACTIONS 347),
    (anon_sym_type, ACTIONS 349), (anon_sym_mut, ACTIONS 339), (anon_sym_out, ACTIONS 339),
    (anon_sym_DASH, ACTIONS 79), (anon_sym_PLUS, ACTIONS 79), (anon_sym_ref, ACTIONS 81),
    (anon_sym_var, ACTIONS 81), (anon_sym_not, ACTIONS 83), (anon_sym_TILDE, ACTIONS 79),
    (anon_sym_lambda, ACTIONS 85), (anon_sym_yield, ACTIONS 87), (sym_ellipsis, ACTIONS 89),
    (anon_sym___mlir_type, ACTIONS 91), (sym_integer, ACTIONS 93), (sym_float, ACTIONS 89),
    (anon_sym_await, ACTIONS 351), (sym_true, ACTIONS 93), (sym_false, ACTIONS 93),
    (sym_none, ACTIONS 93), (sym_comment, ACTIONS 3), (sym_line_continuation, ACTIONS 3),
    (sym__newline, ACTIONS 1037), (sym__indent, ACTIONS 1039), (sym_string_start, ACTIONS 97)]"

definition parse_table_1101 :: "(nat \<times> nat) list" where "parse_table_1101 = [
    (sym__simple_statements, STATE 6608), (sym_import_statement, STATE 11814),
    (sym_future_import_statement, STATE 11814), (sym_import_from_statement, STATE 11814),
    (sym_print_statement, STATE 11814), (sym_assert_statement, STATE 11814),
    (sym_comptime_assert_statement, STATE 11814), (sym_expression_statement, STATE 11814),
    (sym_tuple_expression, STATE 12425), (sym_named_expression, STATE 7969),
    (sym__named_expression_lhs, STATE 12752), (sym_return_statement, STATE 11814),
    (sym_delete_statement, STATE 11814), (sym_raise_statement, STATE 11814),
    (sym_pass_statement, STATE 11814), (sym_break_statement, STATE 11814),
    (sym_continue_statement, STATE 11814), (sym_global_statement, STATE 11814),
    (sym_nonlocal_statement, STATE 11814), (sym_exec_statement, STATE 11814),
    (sym_type_alias_statement, STATE 11814), (sym_parameterized_alias_statement, STATE 11814),
    (sym_pattern, STATE 8086), (sym_tuple_pattern, STATE 8101), (sym_list_pattern, STATE 8101),
    (sym_list_splat_pattern, STATE 6795), (sym_as_pattern, STATE 7969),
    (sym_expression, STATE 9623), (sym_primary_expression, STATE 7326),
    (sym_comptime_expression, STATE 7017), (sym_transfer_expression, STATE 7017),
    (sym_not_operator, STATE 7969), (sym_boolean_operator, STATE 7969),
    (sym_binary_operator, STATE 7017), (sym_unary_operator, STATE 7017),
    (sym_comparison_operator, STATE 7969), (sym_lambda, STATE 7969),
    (sym_assignment, STATE 12425), (sym_augmented_assignment, STATE 12425),
    (sym_pattern_list, STATE 8578), (sym_yield, STATE 12425), (sym_attribute, STATE 6796),
    (sym_subscript, STATE 6797), (sym_call, STATE 6768), (sym_type, STATE 10130),
    (sym_called_type, STATE 9093), (sym_function_type, STATE 9093), (sym_splat_type, STATE 9093),
    (sym_generic_type, STATE 8287), (sym_union_type, STATE 9093),
    (sym_intersection_type, STATE 9093), (sym__intersection_operand, STATE 12294),
    (sym_constrained_type, STATE 9093), (sym_member_type, STATE 8165),
    (sym_mlir_type, STATE 7017), (sym_list, STATE 7017), (sym_set, STATE 7017),
    (sym_tuple, STATE 7017), (sym_dictionary, STATE 7017), (sym_struct_literal, STATE 7017),
    (sym_list_comprehension, STATE 7017), (sym_dictionary_comprehension, STATE 7017),
    (sym_set_comprehension, STATE 7017), (sym_generator_expression, STATE 7017),
    (sym_parenthesized_expression, STATE 7017), (sym_conditional_expression, STATE 7969),
    (sym_concatenated_string, STATE 7017), (sym_string, STATE 6729), (sym_await, STATE 7017),
    (sym_identifier, ACTIONS 327), (anon_sym_import, ACTIONS 11), (anon_sym_from, ACTIONS 13),
    (anon_sym_LPAREN, ACTIONS 329), (anon_sym_STAR, ACTIONS 331), (anon_sym_print, ACTIONS 333),
    (anon_sym_comptime, ACTIONS 335), (anon_sym_assert, ACTIONS 23),
    (anon_sym___comptime_assert, ACTIONS 25), (anon_sym_return, ACTIONS 27),
    (anon_sym_del, ACTIONS 29), (anon_sym_raise, ACTIONS 31), (anon_sym_pass, ACTIONS 33),
    (anon_sym_break, ACTIONS 35), (anon_sym_continue, ACTIONS 37), (anon_sym_match, ACTIONS 337),
    (anon_sym_async, ACTIONS 339), (anon_sym_def, ACTIONS 341), (anon_sym_LBRACK, ACTIONS 343),
    (anon_sym_LBRACE, ACTIONS 61), (anon_sym_STAR_STAR, ACTIONS 345),
    (anon_sym_global, ACTIONS 63), (anon_sym_nonlocal, ACTIONS 65), (anon_sym_exec, ACTIONS 347),
    (anon_sym_type, ACTIONS 349), (anon_sym_mut, ACTIONS 339), (anon_sym_out, ACTIONS 339),
    (anon_sym_DASH, ACTIONS 79), (anon_sym_PLUS, ACTIONS 79), (anon_sym_ref, ACTIONS 81),
    (anon_sym_var, ACTIONS 81), (anon_sym_not, ACTIONS 83), (anon_sym_TILDE, ACTIONS 79),
    (anon_sym_lambda, ACTIONS 85), (anon_sym_yield, ACTIONS 87), (sym_ellipsis, ACTIONS 89),
    (anon_sym___mlir_type, ACTIONS 91), (sym_integer, ACTIONS 93), (sym_float, ACTIONS 89),
    (anon_sym_await, ACTIONS 351), (sym_true, ACTIONS 93), (sym_false, ACTIONS 93),
    (sym_none, ACTIONS 93), (sym_comment, ACTIONS 3), (sym_line_continuation, ACTIONS 3),
    (sym__newline, ACTIONS 1041), (sym__indent, ACTIONS 1043), (sym_string_start, ACTIONS 97)]"

definition parse_table_1102 :: "(nat \<times> nat) list" where "parse_table_1102 = [
    (sym__simple_statements, STATE 4905), (sym_import_statement, STATE 12239),
    (sym_future_import_statement, STATE 12239), (sym_import_from_statement, STATE 12239),
    (sym_print_statement, STATE 12239), (sym_assert_statement, STATE 12239),
    (sym_comptime_assert_statement, STATE 12239), (sym_expression_statement, STATE 12239),
    (sym_tuple_expression, STATE 12425), (sym_named_expression, STATE 7969),
    (sym__named_expression_lhs, STATE 12752), (sym_return_statement, STATE 12239),
    (sym_delete_statement, STATE 12239), (sym_raise_statement, STATE 12239),
    (sym_pass_statement, STATE 12239), (sym_break_statement, STATE 12239),
    (sym_continue_statement, STATE 12239), (sym_global_statement, STATE 12239),
    (sym_nonlocal_statement, STATE 12239), (sym_exec_statement, STATE 12239),
    (sym_type_alias_statement, STATE 12239), (sym_parameterized_alias_statement, STATE 12239),
    (sym_pattern, STATE 8086), (sym_tuple_pattern, STATE 8101), (sym_list_pattern, STATE 8101),
    (sym_list_splat_pattern, STATE 6795), (sym_as_pattern, STATE 7969),
    (sym_expression, STATE 9623), (sym_primary_expression, STATE 7326),
    (sym_comptime_expression, STATE 7017), (sym_transfer_expression, STATE 7017),
    (sym_not_operator, STATE 7969), (sym_boolean_operator, STATE 7969),
    (sym_binary_operator, STATE 7017), (sym_unary_operator, STATE 7017),
    (sym_comparison_operator, STATE 7969), (sym_lambda, STATE 7969),
    (sym_assignment, STATE 12425), (sym_augmented_assignment, STATE 12425),
    (sym_pattern_list, STATE 8578), (sym_yield, STATE 12425), (sym_attribute, STATE 6796),
    (sym_subscript, STATE 6797), (sym_call, STATE 6768), (sym_type, STATE 10130),
    (sym_called_type, STATE 9093), (sym_function_type, STATE 9093), (sym_splat_type, STATE 9093),
    (sym_generic_type, STATE 8287), (sym_union_type, STATE 9093),
    (sym_intersection_type, STATE 9093), (sym__intersection_operand, STATE 12294),
    (sym_constrained_type, STATE 9093), (sym_member_type, STATE 8165),
    (sym_mlir_type, STATE 7017), (sym_list, STATE 7017), (sym_set, STATE 7017),
    (sym_tuple, STATE 7017), (sym_dictionary, STATE 7017), (sym_struct_literal, STATE 7017),
    (sym_list_comprehension, STATE 7017), (sym_dictionary_comprehension, STATE 7017),
    (sym_set_comprehension, STATE 7017), (sym_generator_expression, STATE 7017),
    (sym_parenthesized_expression, STATE 7017), (sym_conditional_expression, STATE 7969),
    (sym_concatenated_string, STATE 7017), (sym_string, STATE 6729), (sym_await, STATE 7017),
    (sym_identifier, ACTIONS 327), (anon_sym_import, ACTIONS 11), (anon_sym_from, ACTIONS 13),
    (anon_sym_LPAREN, ACTIONS 329), (anon_sym_STAR, ACTIONS 331), (anon_sym_print, ACTIONS 333),
    (anon_sym_comptime, ACTIONS 335), (anon_sym_assert, ACTIONS 23),
    (anon_sym___comptime_assert, ACTIONS 25), (anon_sym_return, ACTIONS 27),
    (anon_sym_del, ACTIONS 29), (anon_sym_raise, ACTIONS 31), (anon_sym_pass, ACTIONS 33),
    (anon_sym_break, ACTIONS 35), (anon_sym_continue, ACTIONS 37), (anon_sym_match, ACTIONS 337),
    (anon_sym_async, ACTIONS 339), (anon_sym_def, ACTIONS 341), (anon_sym_LBRACK, ACTIONS 343),
    (anon_sym_LBRACE, ACTIONS 61), (anon_sym_STAR_STAR, ACTIONS 345),
    (anon_sym_global, ACTIONS 63), (anon_sym_nonlocal, ACTIONS 65), (anon_sym_exec, ACTIONS 347),
    (anon_sym_type, ACTIONS 349), (anon_sym_mut, ACTIONS 339), (anon_sym_out, ACTIONS 339),
    (anon_sym_DASH, ACTIONS 79), (anon_sym_PLUS, ACTIONS 79), (anon_sym_ref, ACTIONS 81),
    (anon_sym_var, ACTIONS 81), (anon_sym_not, ACTIONS 83), (anon_sym_TILDE, ACTIONS 79),
    (anon_sym_lambda, ACTIONS 85), (anon_sym_yield, ACTIONS 87), (sym_ellipsis, ACTIONS 89),
    (anon_sym___mlir_type, ACTIONS 91), (sym_integer, ACTIONS 93), (sym_float, ACTIONS 89),
    (anon_sym_await, ACTIONS 351), (sym_true, ACTIONS 93), (sym_false, ACTIONS 93),
    (sym_none, ACTIONS 93), (sym_comment, ACTIONS 3), (sym_line_continuation, ACTIONS 3),
    (sym__newline, ACTIONS 1045), (sym__indent, ACTIONS 1047), (sym_string_start, ACTIONS 97)]"

definition parse_table_1103 :: "(nat \<times> nat) list" where "parse_table_1103 = [
    (sym__simple_statements, STATE 5130), (sym_import_statement, STATE 12239),
    (sym_future_import_statement, STATE 12239), (sym_import_from_statement, STATE 12239),
    (sym_print_statement, STATE 12239), (sym_assert_statement, STATE 12239),
    (sym_comptime_assert_statement, STATE 12239), (sym_expression_statement, STATE 12239),
    (sym_tuple_expression, STATE 12425), (sym_named_expression, STATE 7969),
    (sym__named_expression_lhs, STATE 12752), (sym_return_statement, STATE 12239),
    (sym_delete_statement, STATE 12239), (sym_raise_statement, STATE 12239),
    (sym_pass_statement, STATE 12239), (sym_break_statement, STATE 12239),
    (sym_continue_statement, STATE 12239), (sym_global_statement, STATE 12239),
    (sym_nonlocal_statement, STATE 12239), (sym_exec_statement, STATE 12239),
    (sym_type_alias_statement, STATE 12239), (sym_parameterized_alias_statement, STATE 12239),
    (sym_pattern, STATE 8086), (sym_tuple_pattern, STATE 8101), (sym_list_pattern, STATE 8101),
    (sym_list_splat_pattern, STATE 6795), (sym_as_pattern, STATE 7969),
    (sym_expression, STATE 9623), (sym_primary_expression, STATE 7326),
    (sym_comptime_expression, STATE 7017), (sym_transfer_expression, STATE 7017),
    (sym_not_operator, STATE 7969), (sym_boolean_operator, STATE 7969),
    (sym_binary_operator, STATE 7017), (sym_unary_operator, STATE 7017),
    (sym_comparison_operator, STATE 7969), (sym_lambda, STATE 7969),
    (sym_assignment, STATE 12425), (sym_augmented_assignment, STATE 12425),
    (sym_pattern_list, STATE 8578), (sym_yield, STATE 12425), (sym_attribute, STATE 6796),
    (sym_subscript, STATE 6797), (sym_call, STATE 6768), (sym_type, STATE 10130),
    (sym_called_type, STATE 9093), (sym_function_type, STATE 9093), (sym_splat_type, STATE 9093),
    (sym_generic_type, STATE 8287), (sym_union_type, STATE 9093),
    (sym_intersection_type, STATE 9093), (sym__intersection_operand, STATE 12294),
    (sym_constrained_type, STATE 9093), (sym_member_type, STATE 8165),
    (sym_mlir_type, STATE 7017), (sym_list, STATE 7017), (sym_set, STATE 7017),
    (sym_tuple, STATE 7017), (sym_dictionary, STATE 7017), (sym_struct_literal, STATE 7017),
    (sym_list_comprehension, STATE 7017), (sym_dictionary_comprehension, STATE 7017),
    (sym_set_comprehension, STATE 7017), (sym_generator_expression, STATE 7017),
    (sym_parenthesized_expression, STATE 7017), (sym_conditional_expression, STATE 7969),
    (sym_concatenated_string, STATE 7017), (sym_string, STATE 6729), (sym_await, STATE 7017),
    (sym_identifier, ACTIONS 327), (anon_sym_import, ACTIONS 11), (anon_sym_from, ACTIONS 13),
    (anon_sym_LPAREN, ACTIONS 329), (anon_sym_STAR, ACTIONS 331), (anon_sym_print, ACTIONS 333),
    (anon_sym_comptime, ACTIONS 335), (anon_sym_assert, ACTIONS 23),
    (anon_sym___comptime_assert, ACTIONS 25), (anon_sym_return, ACTIONS 27),
    (anon_sym_del, ACTIONS 29), (anon_sym_raise, ACTIONS 31), (anon_sym_pass, ACTIONS 33),
    (anon_sym_break, ACTIONS 35), (anon_sym_continue, ACTIONS 37), (anon_sym_match, ACTIONS 337),
    (anon_sym_async, ACTIONS 339), (anon_sym_def, ACTIONS 341), (anon_sym_LBRACK, ACTIONS 343),
    (anon_sym_LBRACE, ACTIONS 61), (anon_sym_STAR_STAR, ACTIONS 345),
    (anon_sym_global, ACTIONS 63), (anon_sym_nonlocal, ACTIONS 65), (anon_sym_exec, ACTIONS 347),
    (anon_sym_type, ACTIONS 349), (anon_sym_mut, ACTIONS 339), (anon_sym_out, ACTIONS 339),
    (anon_sym_DASH, ACTIONS 79), (anon_sym_PLUS, ACTIONS 79), (anon_sym_ref, ACTIONS 81),
    (anon_sym_var, ACTIONS 81), (anon_sym_not, ACTIONS 83), (anon_sym_TILDE, ACTIONS 79),
    (anon_sym_lambda, ACTIONS 85), (anon_sym_yield, ACTIONS 87), (sym_ellipsis, ACTIONS 89),
    (anon_sym___mlir_type, ACTIONS 91), (sym_integer, ACTIONS 93), (sym_float, ACTIONS 89),
    (anon_sym_await, ACTIONS 351), (sym_true, ACTIONS 93), (sym_false, ACTIONS 93),
    (sym_none, ACTIONS 93), (sym_comment, ACTIONS 3), (sym_line_continuation, ACTIONS 3),
    (sym__newline, ACTIONS 1049), (sym__indent, ACTIONS 1051), (sym_string_start, ACTIONS 97)]"

definition parse_table_1104 :: "(nat \<times> nat) list" where "parse_table_1104 = [
    (sym__simple_statements, STATE 5133), (sym_import_statement, STATE 12239),
    (sym_future_import_statement, STATE 12239), (sym_import_from_statement, STATE 12239),
    (sym_print_statement, STATE 12239), (sym_assert_statement, STATE 12239),
    (sym_comptime_assert_statement, STATE 12239), (sym_expression_statement, STATE 12239),
    (sym_tuple_expression, STATE 12425), (sym_named_expression, STATE 7969),
    (sym__named_expression_lhs, STATE 12752), (sym_return_statement, STATE 12239),
    (sym_delete_statement, STATE 12239), (sym_raise_statement, STATE 12239),
    (sym_pass_statement, STATE 12239), (sym_break_statement, STATE 12239),
    (sym_continue_statement, STATE 12239), (sym_global_statement, STATE 12239),
    (sym_nonlocal_statement, STATE 12239), (sym_exec_statement, STATE 12239),
    (sym_type_alias_statement, STATE 12239), (sym_parameterized_alias_statement, STATE 12239),
    (sym_pattern, STATE 8086), (sym_tuple_pattern, STATE 8101), (sym_list_pattern, STATE 8101),
    (sym_list_splat_pattern, STATE 6795), (sym_as_pattern, STATE 7969),
    (sym_expression, STATE 9623), (sym_primary_expression, STATE 7326),
    (sym_comptime_expression, STATE 7017), (sym_transfer_expression, STATE 7017),
    (sym_not_operator, STATE 7969), (sym_boolean_operator, STATE 7969),
    (sym_binary_operator, STATE 7017), (sym_unary_operator, STATE 7017),
    (sym_comparison_operator, STATE 7969), (sym_lambda, STATE 7969),
    (sym_assignment, STATE 12425), (sym_augmented_assignment, STATE 12425),
    (sym_pattern_list, STATE 8578), (sym_yield, STATE 12425), (sym_attribute, STATE 6796),
    (sym_subscript, STATE 6797), (sym_call, STATE 6768), (sym_type, STATE 10130),
    (sym_called_type, STATE 9093), (sym_function_type, STATE 9093), (sym_splat_type, STATE 9093),
    (sym_generic_type, STATE 8287), (sym_union_type, STATE 9093),
    (sym_intersection_type, STATE 9093), (sym__intersection_operand, STATE 12294),
    (sym_constrained_type, STATE 9093), (sym_member_type, STATE 8165),
    (sym_mlir_type, STATE 7017), (sym_list, STATE 7017), (sym_set, STATE 7017),
    (sym_tuple, STATE 7017), (sym_dictionary, STATE 7017), (sym_struct_literal, STATE 7017),
    (sym_list_comprehension, STATE 7017), (sym_dictionary_comprehension, STATE 7017),
    (sym_set_comprehension, STATE 7017), (sym_generator_expression, STATE 7017),
    (sym_parenthesized_expression, STATE 7017), (sym_conditional_expression, STATE 7969),
    (sym_concatenated_string, STATE 7017), (sym_string, STATE 6729), (sym_await, STATE 7017),
    (sym_identifier, ACTIONS 327), (anon_sym_import, ACTIONS 11), (anon_sym_from, ACTIONS 13),
    (anon_sym_LPAREN, ACTIONS 329), (anon_sym_STAR, ACTIONS 331), (anon_sym_print, ACTIONS 333),
    (anon_sym_comptime, ACTIONS 335), (anon_sym_assert, ACTIONS 23),
    (anon_sym___comptime_assert, ACTIONS 25), (anon_sym_return, ACTIONS 27),
    (anon_sym_del, ACTIONS 29), (anon_sym_raise, ACTIONS 31), (anon_sym_pass, ACTIONS 33),
    (anon_sym_break, ACTIONS 35), (anon_sym_continue, ACTIONS 37), (anon_sym_match, ACTIONS 337),
    (anon_sym_async, ACTIONS 339), (anon_sym_def, ACTIONS 341), (anon_sym_LBRACK, ACTIONS 343),
    (anon_sym_LBRACE, ACTIONS 61), (anon_sym_STAR_STAR, ACTIONS 345),
    (anon_sym_global, ACTIONS 63), (anon_sym_nonlocal, ACTIONS 65), (anon_sym_exec, ACTIONS 347),
    (anon_sym_type, ACTIONS 349), (anon_sym_mut, ACTIONS 339), (anon_sym_out, ACTIONS 339),
    (anon_sym_DASH, ACTIONS 79), (anon_sym_PLUS, ACTIONS 79), (anon_sym_ref, ACTIONS 81),
    (anon_sym_var, ACTIONS 81), (anon_sym_not, ACTIONS 83), (anon_sym_TILDE, ACTIONS 79),
    (anon_sym_lambda, ACTIONS 85), (anon_sym_yield, ACTIONS 87), (sym_ellipsis, ACTIONS 89),
    (anon_sym___mlir_type, ACTIONS 91), (sym_integer, ACTIONS 93), (sym_float, ACTIONS 89),
    (anon_sym_await, ACTIONS 351), (sym_true, ACTIONS 93), (sym_false, ACTIONS 93),
    (sym_none, ACTIONS 93), (sym_comment, ACTIONS 3), (sym_line_continuation, ACTIONS 3),
    (sym__newline, ACTIONS 1053), (sym__indent, ACTIONS 1055), (sym_string_start, ACTIONS 97)]"

definition parse_table_1105 :: "(nat \<times> nat) list" where "parse_table_1105 = [
    (sym__simple_statements, STATE 6145), (sym_import_statement, STATE 12239),
    (sym_future_import_statement, STATE 12239), (sym_import_from_statement, STATE 12239),
    (sym_print_statement, STATE 12239), (sym_assert_statement, STATE 12239),
    (sym_comptime_assert_statement, STATE 12239), (sym_expression_statement, STATE 12239),
    (sym_tuple_expression, STATE 12425), (sym_named_expression, STATE 7969),
    (sym__named_expression_lhs, STATE 12752), (sym_return_statement, STATE 12239),
    (sym_delete_statement, STATE 12239), (sym_raise_statement, STATE 12239),
    (sym_pass_statement, STATE 12239), (sym_break_statement, STATE 12239),
    (sym_continue_statement, STATE 12239), (sym_global_statement, STATE 12239),
    (sym_nonlocal_statement, STATE 12239), (sym_exec_statement, STATE 12239),
    (sym_type_alias_statement, STATE 12239), (sym_parameterized_alias_statement, STATE 12239),
    (sym_pattern, STATE 8086), (sym_tuple_pattern, STATE 8101), (sym_list_pattern, STATE 8101),
    (sym_list_splat_pattern, STATE 6795), (sym_as_pattern, STATE 7969),
    (sym_expression, STATE 9623), (sym_primary_expression, STATE 7326),
    (sym_comptime_expression, STATE 7017), (sym_transfer_expression, STATE 7017),
    (sym_not_operator, STATE 7969), (sym_boolean_operator, STATE 7969),
    (sym_binary_operator, STATE 7017), (sym_unary_operator, STATE 7017),
    (sym_comparison_operator, STATE 7969), (sym_lambda, STATE 7969),
    (sym_assignment, STATE 12425), (sym_augmented_assignment, STATE 12425),
    (sym_pattern_list, STATE 8578), (sym_yield, STATE 12425), (sym_attribute, STATE 6796),
    (sym_subscript, STATE 6797), (sym_call, STATE 6768), (sym_type, STATE 10130),
    (sym_called_type, STATE 9093), (sym_function_type, STATE 9093), (sym_splat_type, STATE 9093),
    (sym_generic_type, STATE 8287), (sym_union_type, STATE 9093),
    (sym_intersection_type, STATE 9093), (sym__intersection_operand, STATE 12294),
    (sym_constrained_type, STATE 9093), (sym_member_type, STATE 8165),
    (sym_mlir_type, STATE 7017), (sym_list, STATE 7017), (sym_set, STATE 7017),
    (sym_tuple, STATE 7017), (sym_dictionary, STATE 7017), (sym_struct_literal, STATE 7017),
    (sym_list_comprehension, STATE 7017), (sym_dictionary_comprehension, STATE 7017),
    (sym_set_comprehension, STATE 7017), (sym_generator_expression, STATE 7017),
    (sym_parenthesized_expression, STATE 7017), (sym_conditional_expression, STATE 7969),
    (sym_concatenated_string, STATE 7017), (sym_string, STATE 6729), (sym_await, STATE 7017),
    (sym_identifier, ACTIONS 327), (anon_sym_import, ACTIONS 11), (anon_sym_from, ACTIONS 13),
    (anon_sym_LPAREN, ACTIONS 329), (anon_sym_STAR, ACTIONS 331), (anon_sym_print, ACTIONS 333),
    (anon_sym_comptime, ACTIONS 335), (anon_sym_assert, ACTIONS 23),
    (anon_sym___comptime_assert, ACTIONS 25), (anon_sym_return, ACTIONS 27),
    (anon_sym_del, ACTIONS 29), (anon_sym_raise, ACTIONS 31), (anon_sym_pass, ACTIONS 33),
    (anon_sym_break, ACTIONS 35), (anon_sym_continue, ACTIONS 37), (anon_sym_match, ACTIONS 337),
    (anon_sym_async, ACTIONS 339), (anon_sym_def, ACTIONS 341), (anon_sym_LBRACK, ACTIONS 343),
    (anon_sym_LBRACE, ACTIONS 61), (anon_sym_STAR_STAR, ACTIONS 345),
    (anon_sym_global, ACTIONS 63), (anon_sym_nonlocal, ACTIONS 65), (anon_sym_exec, ACTIONS 347),
    (anon_sym_type, ACTIONS 349), (anon_sym_mut, ACTIONS 339), (anon_sym_out, ACTIONS 339),
    (anon_sym_DASH, ACTIONS 79), (anon_sym_PLUS, ACTIONS 79), (anon_sym_ref, ACTIONS 81),
    (anon_sym_var, ACTIONS 81), (anon_sym_not, ACTIONS 83), (anon_sym_TILDE, ACTIONS 79),
    (anon_sym_lambda, ACTIONS 85), (anon_sym_yield, ACTIONS 87), (sym_ellipsis, ACTIONS 89),
    (anon_sym___mlir_type, ACTIONS 91), (sym_integer, ACTIONS 93), (sym_float, ACTIONS 89),
    (anon_sym_await, ACTIONS 351), (sym_true, ACTIONS 93), (sym_false, ACTIONS 93),
    (sym_none, ACTIONS 93), (sym_comment, ACTIONS 3), (sym_line_continuation, ACTIONS 3),
    (sym__newline, ACTIONS 1057), (sym__indent, ACTIONS 1059), (sym_string_start, ACTIONS 97)]"

definition parse_table_1106 :: "(nat \<times> nat) list" where "parse_table_1106 = [
    (sym__simple_statements, STATE 6650), (sym_import_statement, STATE 12239),
    (sym_future_import_statement, STATE 12239), (sym_import_from_statement, STATE 12239),
    (sym_print_statement, STATE 12239), (sym_assert_statement, STATE 12239),
    (sym_comptime_assert_statement, STATE 12239), (sym_expression_statement, STATE 12239),
    (sym_tuple_expression, STATE 12425), (sym_named_expression, STATE 7969),
    (sym__named_expression_lhs, STATE 12752), (sym_return_statement, STATE 12239),
    (sym_delete_statement, STATE 12239), (sym_raise_statement, STATE 12239),
    (sym_pass_statement, STATE 12239), (sym_break_statement, STATE 12239),
    (sym_continue_statement, STATE 12239), (sym_global_statement, STATE 12239),
    (sym_nonlocal_statement, STATE 12239), (sym_exec_statement, STATE 12239),
    (sym_type_alias_statement, STATE 12239), (sym_parameterized_alias_statement, STATE 12239),
    (sym_pattern, STATE 8086), (sym_tuple_pattern, STATE 8101), (sym_list_pattern, STATE 8101),
    (sym_list_splat_pattern, STATE 6795), (sym_as_pattern, STATE 7969),
    (sym_expression, STATE 9623), (sym_primary_expression, STATE 7326),
    (sym_comptime_expression, STATE 7017), (sym_transfer_expression, STATE 7017),
    (sym_not_operator, STATE 7969), (sym_boolean_operator, STATE 7969),
    (sym_binary_operator, STATE 7017), (sym_unary_operator, STATE 7017),
    (sym_comparison_operator, STATE 7969), (sym_lambda, STATE 7969),
    (sym_assignment, STATE 12425), (sym_augmented_assignment, STATE 12425),
    (sym_pattern_list, STATE 8578), (sym_yield, STATE 12425), (sym_attribute, STATE 6796),
    (sym_subscript, STATE 6797), (sym_call, STATE 6768), (sym_type, STATE 10130),
    (sym_called_type, STATE 9093), (sym_function_type, STATE 9093), (sym_splat_type, STATE 9093),
    (sym_generic_type, STATE 8287), (sym_union_type, STATE 9093),
    (sym_intersection_type, STATE 9093), (sym__intersection_operand, STATE 12294),
    (sym_constrained_type, STATE 9093), (sym_member_type, STATE 8165),
    (sym_mlir_type, STATE 7017), (sym_list, STATE 7017), (sym_set, STATE 7017),
    (sym_tuple, STATE 7017), (sym_dictionary, STATE 7017), (sym_struct_literal, STATE 7017),
    (sym_list_comprehension, STATE 7017), (sym_dictionary_comprehension, STATE 7017),
    (sym_set_comprehension, STATE 7017), (sym_generator_expression, STATE 7017),
    (sym_parenthesized_expression, STATE 7017), (sym_conditional_expression, STATE 7969),
    (sym_concatenated_string, STATE 7017), (sym_string, STATE 6729), (sym_await, STATE 7017),
    (sym_identifier, ACTIONS 327), (anon_sym_import, ACTIONS 11), (anon_sym_from, ACTIONS 13),
    (anon_sym_LPAREN, ACTIONS 329), (anon_sym_STAR, ACTIONS 331), (anon_sym_print, ACTIONS 333),
    (anon_sym_comptime, ACTIONS 335), (anon_sym_assert, ACTIONS 23),
    (anon_sym___comptime_assert, ACTIONS 25), (anon_sym_return, ACTIONS 27),
    (anon_sym_del, ACTIONS 29), (anon_sym_raise, ACTIONS 31), (anon_sym_pass, ACTIONS 33),
    (anon_sym_break, ACTIONS 35), (anon_sym_continue, ACTIONS 37), (anon_sym_match, ACTIONS 337),
    (anon_sym_async, ACTIONS 339), (anon_sym_def, ACTIONS 341), (anon_sym_LBRACK, ACTIONS 343),
    (anon_sym_LBRACE, ACTIONS 61), (anon_sym_STAR_STAR, ACTIONS 345),
    (anon_sym_global, ACTIONS 63), (anon_sym_nonlocal, ACTIONS 65), (anon_sym_exec, ACTIONS 347),
    (anon_sym_type, ACTIONS 349), (anon_sym_mut, ACTIONS 339), (anon_sym_out, ACTIONS 339),
    (anon_sym_DASH, ACTIONS 79), (anon_sym_PLUS, ACTIONS 79), (anon_sym_ref, ACTIONS 81),
    (anon_sym_var, ACTIONS 81), (anon_sym_not, ACTIONS 83), (anon_sym_TILDE, ACTIONS 79),
    (anon_sym_lambda, ACTIONS 85), (anon_sym_yield, ACTIONS 87), (sym_ellipsis, ACTIONS 89),
    (anon_sym___mlir_type, ACTIONS 91), (sym_integer, ACTIONS 93), (sym_float, ACTIONS 89),
    (anon_sym_await, ACTIONS 351), (sym_true, ACTIONS 93), (sym_false, ACTIONS 93),
    (sym_none, ACTIONS 93), (sym_comment, ACTIONS 3), (sym_line_continuation, ACTIONS 3),
    (sym__newline, ACTIONS 1061), (sym__indent, ACTIONS 1063), (sym_string_start, ACTIONS 97)]"

definition parse_table_1107 :: "(nat \<times> nat) list" where "parse_table_1107 = [
    (sym__simple_statements, STATE 5772), (sym_import_statement, STATE 11814),
    (sym_future_import_statement, STATE 11814), (sym_import_from_statement, STATE 11814),
    (sym_print_statement, STATE 11814), (sym_assert_statement, STATE 11814),
    (sym_comptime_assert_statement, STATE 11814), (sym_expression_statement, STATE 11814),
    (sym_tuple_expression, STATE 12425), (sym_named_expression, STATE 7969),
    (sym__named_expression_lhs, STATE 12752), (sym_return_statement, STATE 11814),
    (sym_delete_statement, STATE 11814), (sym_raise_statement, STATE 11814),
    (sym_pass_statement, STATE 11814), (sym_break_statement, STATE 11814),
    (sym_continue_statement, STATE 11814), (sym_global_statement, STATE 11814),
    (sym_nonlocal_statement, STATE 11814), (sym_exec_statement, STATE 11814),
    (sym_type_alias_statement, STATE 11814), (sym_parameterized_alias_statement, STATE 11814),
    (sym_pattern, STATE 8086), (sym_tuple_pattern, STATE 8101), (sym_list_pattern, STATE 8101),
    (sym_list_splat_pattern, STATE 6795), (sym_as_pattern, STATE 7969),
    (sym_expression, STATE 9623), (sym_primary_expression, STATE 7326),
    (sym_comptime_expression, STATE 7017), (sym_transfer_expression, STATE 7017),
    (sym_not_operator, STATE 7969), (sym_boolean_operator, STATE 7969),
    (sym_binary_operator, STATE 7017), (sym_unary_operator, STATE 7017),
    (sym_comparison_operator, STATE 7969), (sym_lambda, STATE 7969),
    (sym_assignment, STATE 12425), (sym_augmented_assignment, STATE 12425),
    (sym_pattern_list, STATE 8578), (sym_yield, STATE 12425), (sym_attribute, STATE 6796),
    (sym_subscript, STATE 6797), (sym_call, STATE 6768), (sym_type, STATE 10130),
    (sym_called_type, STATE 9093), (sym_function_type, STATE 9093), (sym_splat_type, STATE 9093),
    (sym_generic_type, STATE 8287), (sym_union_type, STATE 9093),
    (sym_intersection_type, STATE 9093), (sym__intersection_operand, STATE 12294),
    (sym_constrained_type, STATE 9093), (sym_member_type, STATE 8165),
    (sym_mlir_type, STATE 7017), (sym_list, STATE 7017), (sym_set, STATE 7017),
    (sym_tuple, STATE 7017), (sym_dictionary, STATE 7017), (sym_struct_literal, STATE 7017),
    (sym_list_comprehension, STATE 7017), (sym_dictionary_comprehension, STATE 7017),
    (sym_set_comprehension, STATE 7017), (sym_generator_expression, STATE 7017),
    (sym_parenthesized_expression, STATE 7017), (sym_conditional_expression, STATE 7969),
    (sym_concatenated_string, STATE 7017), (sym_string, STATE 6729), (sym_await, STATE 7017),
    (sym_identifier, ACTIONS 327), (anon_sym_import, ACTIONS 11), (anon_sym_from, ACTIONS 13),
    (anon_sym_LPAREN, ACTIONS 329), (anon_sym_STAR, ACTIONS 331), (anon_sym_print, ACTIONS 333),
    (anon_sym_comptime, ACTIONS 335), (anon_sym_assert, ACTIONS 23),
    (anon_sym___comptime_assert, ACTIONS 25), (anon_sym_return, ACTIONS 27),
    (anon_sym_del, ACTIONS 29), (anon_sym_raise, ACTIONS 31), (anon_sym_pass, ACTIONS 33),
    (anon_sym_break, ACTIONS 35), (anon_sym_continue, ACTIONS 37), (anon_sym_match, ACTIONS 337),
    (anon_sym_async, ACTIONS 339), (anon_sym_def, ACTIONS 341), (anon_sym_LBRACK, ACTIONS 343),
    (anon_sym_LBRACE, ACTIONS 61), (anon_sym_STAR_STAR, ACTIONS 345),
    (anon_sym_global, ACTIONS 63), (anon_sym_nonlocal, ACTIONS 65), (anon_sym_exec, ACTIONS 347),
    (anon_sym_type, ACTIONS 349), (anon_sym_mut, ACTIONS 339), (anon_sym_out, ACTIONS 339),
    (anon_sym_DASH, ACTIONS 79), (anon_sym_PLUS, ACTIONS 79), (anon_sym_ref, ACTIONS 81),
    (anon_sym_var, ACTIONS 81), (anon_sym_not, ACTIONS 83), (anon_sym_TILDE, ACTIONS 79),
    (anon_sym_lambda, ACTIONS 85), (anon_sym_yield, ACTIONS 87), (sym_ellipsis, ACTIONS 89),
    (anon_sym___mlir_type, ACTIONS 91), (sym_integer, ACTIONS 93), (sym_float, ACTIONS 89),
    (anon_sym_await, ACTIONS 351), (sym_true, ACTIONS 93), (sym_false, ACTIONS 93),
    (sym_none, ACTIONS 93), (sym_comment, ACTIONS 3), (sym_line_continuation, ACTIONS 3),
    (sym__newline, ACTIONS 1065), (sym__indent, ACTIONS 1067), (sym_string_start, ACTIONS 97)]"

definition parse_table_1108 :: "(nat \<times> nat) list" where "parse_table_1108 = [
    (sym__simple_statements, STATE 6163), (sym_import_statement, STATE 12239),
    (sym_future_import_statement, STATE 12239), (sym_import_from_statement, STATE 12239),
    (sym_print_statement, STATE 12239), (sym_assert_statement, STATE 12239),
    (sym_comptime_assert_statement, STATE 12239), (sym_expression_statement, STATE 12239),
    (sym_tuple_expression, STATE 12425), (sym_named_expression, STATE 7969),
    (sym__named_expression_lhs, STATE 12752), (sym_return_statement, STATE 12239),
    (sym_delete_statement, STATE 12239), (sym_raise_statement, STATE 12239),
    (sym_pass_statement, STATE 12239), (sym_break_statement, STATE 12239),
    (sym_continue_statement, STATE 12239), (sym_global_statement, STATE 12239),
    (sym_nonlocal_statement, STATE 12239), (sym_exec_statement, STATE 12239),
    (sym_type_alias_statement, STATE 12239), (sym_parameterized_alias_statement, STATE 12239),
    (sym_pattern, STATE 8086), (sym_tuple_pattern, STATE 8101), (sym_list_pattern, STATE 8101),
    (sym_list_splat_pattern, STATE 6795), (sym_as_pattern, STATE 7969),
    (sym_expression, STATE 9623), (sym_primary_expression, STATE 7326),
    (sym_comptime_expression, STATE 7017), (sym_transfer_expression, STATE 7017),
    (sym_not_operator, STATE 7969), (sym_boolean_operator, STATE 7969),
    (sym_binary_operator, STATE 7017), (sym_unary_operator, STATE 7017),
    (sym_comparison_operator, STATE 7969), (sym_lambda, STATE 7969),
    (sym_assignment, STATE 12425), (sym_augmented_assignment, STATE 12425),
    (sym_pattern_list, STATE 8578), (sym_yield, STATE 12425), (sym_attribute, STATE 6796),
    (sym_subscript, STATE 6797), (sym_call, STATE 6768), (sym_type, STATE 10130),
    (sym_called_type, STATE 9093), (sym_function_type, STATE 9093), (sym_splat_type, STATE 9093),
    (sym_generic_type, STATE 8287), (sym_union_type, STATE 9093),
    (sym_intersection_type, STATE 9093), (sym__intersection_operand, STATE 12294),
    (sym_constrained_type, STATE 9093), (sym_member_type, STATE 8165),
    (sym_mlir_type, STATE 7017), (sym_list, STATE 7017), (sym_set, STATE 7017),
    (sym_tuple, STATE 7017), (sym_dictionary, STATE 7017), (sym_struct_literal, STATE 7017),
    (sym_list_comprehension, STATE 7017), (sym_dictionary_comprehension, STATE 7017),
    (sym_set_comprehension, STATE 7017), (sym_generator_expression, STATE 7017),
    (sym_parenthesized_expression, STATE 7017), (sym_conditional_expression, STATE 7969),
    (sym_concatenated_string, STATE 7017), (sym_string, STATE 6729), (sym_await, STATE 7017),
    (sym_identifier, ACTIONS 327), (anon_sym_import, ACTIONS 11), (anon_sym_from, ACTIONS 13),
    (anon_sym_LPAREN, ACTIONS 329), (anon_sym_STAR, ACTIONS 331), (anon_sym_print, ACTIONS 333),
    (anon_sym_comptime, ACTIONS 335), (anon_sym_assert, ACTIONS 23),
    (anon_sym___comptime_assert, ACTIONS 25), (anon_sym_return, ACTIONS 27),
    (anon_sym_del, ACTIONS 29), (anon_sym_raise, ACTIONS 31), (anon_sym_pass, ACTIONS 33),
    (anon_sym_break, ACTIONS 35), (anon_sym_continue, ACTIONS 37), (anon_sym_match, ACTIONS 337),
    (anon_sym_async, ACTIONS 339), (anon_sym_def, ACTIONS 341), (anon_sym_LBRACK, ACTIONS 343),
    (anon_sym_LBRACE, ACTIONS 61), (anon_sym_STAR_STAR, ACTIONS 345),
    (anon_sym_global, ACTIONS 63), (anon_sym_nonlocal, ACTIONS 65), (anon_sym_exec, ACTIONS 347),
    (anon_sym_type, ACTIONS 349), (anon_sym_mut, ACTIONS 339), (anon_sym_out, ACTIONS 339),
    (anon_sym_DASH, ACTIONS 79), (anon_sym_PLUS, ACTIONS 79), (anon_sym_ref, ACTIONS 81),
    (anon_sym_var, ACTIONS 81), (anon_sym_not, ACTIONS 83), (anon_sym_TILDE, ACTIONS 79),
    (anon_sym_lambda, ACTIONS 85), (anon_sym_yield, ACTIONS 87), (sym_ellipsis, ACTIONS 89),
    (anon_sym___mlir_type, ACTIONS 91), (sym_integer, ACTIONS 93), (sym_float, ACTIONS 89),
    (anon_sym_await, ACTIONS 351), (sym_true, ACTIONS 93), (sym_false, ACTIONS 93),
    (sym_none, ACTIONS 93), (sym_comment, ACTIONS 3), (sym_line_continuation, ACTIONS 3),
    (sym__newline, ACTIONS 1069), (sym__indent, ACTIONS 1071), (sym_string_start, ACTIONS 97)]"

definition parse_table_1109 :: "(nat \<times> nat) list" where "parse_table_1109 = [
    (sym__simple_statements, STATE 5781), (sym_import_statement, STATE 11814),
    (sym_future_import_statement, STATE 11814), (sym_import_from_statement, STATE 11814),
    (sym_print_statement, STATE 11814), (sym_assert_statement, STATE 11814),
    (sym_comptime_assert_statement, STATE 11814), (sym_expression_statement, STATE 11814),
    (sym_tuple_expression, STATE 12425), (sym_named_expression, STATE 7969),
    (sym__named_expression_lhs, STATE 12752), (sym_return_statement, STATE 11814),
    (sym_delete_statement, STATE 11814), (sym_raise_statement, STATE 11814),
    (sym_pass_statement, STATE 11814), (sym_break_statement, STATE 11814),
    (sym_continue_statement, STATE 11814), (sym_global_statement, STATE 11814),
    (sym_nonlocal_statement, STATE 11814), (sym_exec_statement, STATE 11814),
    (sym_type_alias_statement, STATE 11814), (sym_parameterized_alias_statement, STATE 11814),
    (sym_pattern, STATE 8086), (sym_tuple_pattern, STATE 8101), (sym_list_pattern, STATE 8101),
    (sym_list_splat_pattern, STATE 6795), (sym_as_pattern, STATE 7969),
    (sym_expression, STATE 9623), (sym_primary_expression, STATE 7326),
    (sym_comptime_expression, STATE 7017), (sym_transfer_expression, STATE 7017),
    (sym_not_operator, STATE 7969), (sym_boolean_operator, STATE 7969),
    (sym_binary_operator, STATE 7017), (sym_unary_operator, STATE 7017),
    (sym_comparison_operator, STATE 7969), (sym_lambda, STATE 7969),
    (sym_assignment, STATE 12425), (sym_augmented_assignment, STATE 12425),
    (sym_pattern_list, STATE 8578), (sym_yield, STATE 12425), (sym_attribute, STATE 6796),
    (sym_subscript, STATE 6797), (sym_call, STATE 6768), (sym_type, STATE 10130),
    (sym_called_type, STATE 9093), (sym_function_type, STATE 9093), (sym_splat_type, STATE 9093),
    (sym_generic_type, STATE 8287), (sym_union_type, STATE 9093),
    (sym_intersection_type, STATE 9093), (sym__intersection_operand, STATE 12294),
    (sym_constrained_type, STATE 9093), (sym_member_type, STATE 8165),
    (sym_mlir_type, STATE 7017), (sym_list, STATE 7017), (sym_set, STATE 7017),
    (sym_tuple, STATE 7017), (sym_dictionary, STATE 7017), (sym_struct_literal, STATE 7017),
    (sym_list_comprehension, STATE 7017), (sym_dictionary_comprehension, STATE 7017),
    (sym_set_comprehension, STATE 7017), (sym_generator_expression, STATE 7017),
    (sym_parenthesized_expression, STATE 7017), (sym_conditional_expression, STATE 7969),
    (sym_concatenated_string, STATE 7017), (sym_string, STATE 6729), (sym_await, STATE 7017),
    (sym_identifier, ACTIONS 327), (anon_sym_import, ACTIONS 11), (anon_sym_from, ACTIONS 13),
    (anon_sym_LPAREN, ACTIONS 329), (anon_sym_STAR, ACTIONS 331), (anon_sym_print, ACTIONS 333),
    (anon_sym_comptime, ACTIONS 335), (anon_sym_assert, ACTIONS 23),
    (anon_sym___comptime_assert, ACTIONS 25), (anon_sym_return, ACTIONS 27),
    (anon_sym_del, ACTIONS 29), (anon_sym_raise, ACTIONS 31), (anon_sym_pass, ACTIONS 33),
    (anon_sym_break, ACTIONS 35), (anon_sym_continue, ACTIONS 37), (anon_sym_match, ACTIONS 337),
    (anon_sym_async, ACTIONS 339), (anon_sym_def, ACTIONS 341), (anon_sym_LBRACK, ACTIONS 343),
    (anon_sym_LBRACE, ACTIONS 61), (anon_sym_STAR_STAR, ACTIONS 345),
    (anon_sym_global, ACTIONS 63), (anon_sym_nonlocal, ACTIONS 65), (anon_sym_exec, ACTIONS 347),
    (anon_sym_type, ACTIONS 349), (anon_sym_mut, ACTIONS 339), (anon_sym_out, ACTIONS 339),
    (anon_sym_DASH, ACTIONS 79), (anon_sym_PLUS, ACTIONS 79), (anon_sym_ref, ACTIONS 81),
    (anon_sym_var, ACTIONS 81), (anon_sym_not, ACTIONS 83), (anon_sym_TILDE, ACTIONS 79),
    (anon_sym_lambda, ACTIONS 85), (anon_sym_yield, ACTIONS 87), (sym_ellipsis, ACTIONS 89),
    (anon_sym___mlir_type, ACTIONS 91), (sym_integer, ACTIONS 93), (sym_float, ACTIONS 89),
    (anon_sym_await, ACTIONS 351), (sym_true, ACTIONS 93), (sym_false, ACTIONS 93),
    (sym_none, ACTIONS 93), (sym_comment, ACTIONS 3), (sym_line_continuation, ACTIONS 3),
    (sym__newline, ACTIONS 1073), (sym__indent, ACTIONS 1075), (sym_string_start, ACTIONS 97)]"

definition parse_table_1110 :: "(nat \<times> nat) list" where "parse_table_1110 = [
    (sym__simple_statements, STATE 6640), (sym_import_statement, STATE 11814),
    (sym_future_import_statement, STATE 11814), (sym_import_from_statement, STATE 11814),
    (sym_print_statement, STATE 11814), (sym_assert_statement, STATE 11814),
    (sym_comptime_assert_statement, STATE 11814), (sym_expression_statement, STATE 11814),
    (sym_tuple_expression, STATE 12425), (sym_named_expression, STATE 7969),
    (sym__named_expression_lhs, STATE 12752), (sym_return_statement, STATE 11814),
    (sym_delete_statement, STATE 11814), (sym_raise_statement, STATE 11814),
    (sym_pass_statement, STATE 11814), (sym_break_statement, STATE 11814),
    (sym_continue_statement, STATE 11814), (sym_global_statement, STATE 11814),
    (sym_nonlocal_statement, STATE 11814), (sym_exec_statement, STATE 11814),
    (sym_type_alias_statement, STATE 11814), (sym_parameterized_alias_statement, STATE 11814),
    (sym_pattern, STATE 8086), (sym_tuple_pattern, STATE 8101), (sym_list_pattern, STATE 8101),
    (sym_list_splat_pattern, STATE 6795), (sym_as_pattern, STATE 7969),
    (sym_expression, STATE 9623), (sym_primary_expression, STATE 7326),
    (sym_comptime_expression, STATE 7017), (sym_transfer_expression, STATE 7017),
    (sym_not_operator, STATE 7969), (sym_boolean_operator, STATE 7969),
    (sym_binary_operator, STATE 7017), (sym_unary_operator, STATE 7017),
    (sym_comparison_operator, STATE 7969), (sym_lambda, STATE 7969),
    (sym_assignment, STATE 12425), (sym_augmented_assignment, STATE 12425),
    (sym_pattern_list, STATE 8578), (sym_yield, STATE 12425), (sym_attribute, STATE 6796),
    (sym_subscript, STATE 6797), (sym_call, STATE 6768), (sym_type, STATE 10130),
    (sym_called_type, STATE 9093), (sym_function_type, STATE 9093), (sym_splat_type, STATE 9093),
    (sym_generic_type, STATE 8287), (sym_union_type, STATE 9093),
    (sym_intersection_type, STATE 9093), (sym__intersection_operand, STATE 12294),
    (sym_constrained_type, STATE 9093), (sym_member_type, STATE 8165),
    (sym_mlir_type, STATE 7017), (sym_list, STATE 7017), (sym_set, STATE 7017),
    (sym_tuple, STATE 7017), (sym_dictionary, STATE 7017), (sym_struct_literal, STATE 7017),
    (sym_list_comprehension, STATE 7017), (sym_dictionary_comprehension, STATE 7017),
    (sym_set_comprehension, STATE 7017), (sym_generator_expression, STATE 7017),
    (sym_parenthesized_expression, STATE 7017), (sym_conditional_expression, STATE 7969),
    (sym_concatenated_string, STATE 7017), (sym_string, STATE 6729), (sym_await, STATE 7017),
    (sym_identifier, ACTIONS 327), (anon_sym_import, ACTIONS 11), (anon_sym_from, ACTIONS 13),
    (anon_sym_LPAREN, ACTIONS 329), (anon_sym_STAR, ACTIONS 331), (anon_sym_print, ACTIONS 333),
    (anon_sym_comptime, ACTIONS 335), (anon_sym_assert, ACTIONS 23),
    (anon_sym___comptime_assert, ACTIONS 25), (anon_sym_return, ACTIONS 27),
    (anon_sym_del, ACTIONS 29), (anon_sym_raise, ACTIONS 31), (anon_sym_pass, ACTIONS 33),
    (anon_sym_break, ACTIONS 35), (anon_sym_continue, ACTIONS 37), (anon_sym_match, ACTIONS 337),
    (anon_sym_async, ACTIONS 339), (anon_sym_def, ACTIONS 341), (anon_sym_LBRACK, ACTIONS 343),
    (anon_sym_LBRACE, ACTIONS 61), (anon_sym_STAR_STAR, ACTIONS 345),
    (anon_sym_global, ACTIONS 63), (anon_sym_nonlocal, ACTIONS 65), (anon_sym_exec, ACTIONS 347),
    (anon_sym_type, ACTIONS 349), (anon_sym_mut, ACTIONS 339), (anon_sym_out, ACTIONS 339),
    (anon_sym_DASH, ACTIONS 79), (anon_sym_PLUS, ACTIONS 79), (anon_sym_ref, ACTIONS 81),
    (anon_sym_var, ACTIONS 81), (anon_sym_not, ACTIONS 83), (anon_sym_TILDE, ACTIONS 79),
    (anon_sym_lambda, ACTIONS 85), (anon_sym_yield, ACTIONS 87), (sym_ellipsis, ACTIONS 89),
    (anon_sym___mlir_type, ACTIONS 91), (sym_integer, ACTIONS 93), (sym_float, ACTIONS 89),
    (anon_sym_await, ACTIONS 351), (sym_true, ACTIONS 93), (sym_false, ACTIONS 93),
    (sym_none, ACTIONS 93), (sym_comment, ACTIONS 3), (sym_line_continuation, ACTIONS 3),
    (sym__newline, ACTIONS 1077), (sym__indent, ACTIONS 1079), (sym_string_start, ACTIONS 97)]"

definition parse_table_1111 :: "(nat \<times> nat) list" where "parse_table_1111 = [
    (sym__simple_statements, STATE 6180), (sym_import_statement, STATE 12239),
    (sym_future_import_statement, STATE 12239), (sym_import_from_statement, STATE 12239),
    (sym_print_statement, STATE 12239), (sym_assert_statement, STATE 12239),
    (sym_comptime_assert_statement, STATE 12239), (sym_expression_statement, STATE 12239),
    (sym_tuple_expression, STATE 12425), (sym_named_expression, STATE 7969),
    (sym__named_expression_lhs, STATE 12752), (sym_return_statement, STATE 12239),
    (sym_delete_statement, STATE 12239), (sym_raise_statement, STATE 12239),
    (sym_pass_statement, STATE 12239), (sym_break_statement, STATE 12239),
    (sym_continue_statement, STATE 12239), (sym_global_statement, STATE 12239),
    (sym_nonlocal_statement, STATE 12239), (sym_exec_statement, STATE 12239),
    (sym_type_alias_statement, STATE 12239), (sym_parameterized_alias_statement, STATE 12239),
    (sym_pattern, STATE 8086), (sym_tuple_pattern, STATE 8101), (sym_list_pattern, STATE 8101),
    (sym_list_splat_pattern, STATE 6795), (sym_as_pattern, STATE 7969),
    (sym_expression, STATE 9623), (sym_primary_expression, STATE 7326),
    (sym_comptime_expression, STATE 7017), (sym_transfer_expression, STATE 7017),
    (sym_not_operator, STATE 7969), (sym_boolean_operator, STATE 7969),
    (sym_binary_operator, STATE 7017), (sym_unary_operator, STATE 7017),
    (sym_comparison_operator, STATE 7969), (sym_lambda, STATE 7969),
    (sym_assignment, STATE 12425), (sym_augmented_assignment, STATE 12425),
    (sym_pattern_list, STATE 8578), (sym_yield, STATE 12425), (sym_attribute, STATE 6796),
    (sym_subscript, STATE 6797), (sym_call, STATE 6768), (sym_type, STATE 10130),
    (sym_called_type, STATE 9093), (sym_function_type, STATE 9093), (sym_splat_type, STATE 9093),
    (sym_generic_type, STATE 8287), (sym_union_type, STATE 9093),
    (sym_intersection_type, STATE 9093), (sym__intersection_operand, STATE 12294),
    (sym_constrained_type, STATE 9093), (sym_member_type, STATE 8165),
    (sym_mlir_type, STATE 7017), (sym_list, STATE 7017), (sym_set, STATE 7017),
    (sym_tuple, STATE 7017), (sym_dictionary, STATE 7017), (sym_struct_literal, STATE 7017),
    (sym_list_comprehension, STATE 7017), (sym_dictionary_comprehension, STATE 7017),
    (sym_set_comprehension, STATE 7017), (sym_generator_expression, STATE 7017),
    (sym_parenthesized_expression, STATE 7017), (sym_conditional_expression, STATE 7969),
    (sym_concatenated_string, STATE 7017), (sym_string, STATE 6729), (sym_await, STATE 7017),
    (sym_identifier, ACTIONS 327), (anon_sym_import, ACTIONS 11), (anon_sym_from, ACTIONS 13),
    (anon_sym_LPAREN, ACTIONS 329), (anon_sym_STAR, ACTIONS 331), (anon_sym_print, ACTIONS 333),
    (anon_sym_comptime, ACTIONS 335), (anon_sym_assert, ACTIONS 23),
    (anon_sym___comptime_assert, ACTIONS 25), (anon_sym_return, ACTIONS 27),
    (anon_sym_del, ACTIONS 29), (anon_sym_raise, ACTIONS 31), (anon_sym_pass, ACTIONS 33),
    (anon_sym_break, ACTIONS 35), (anon_sym_continue, ACTIONS 37), (anon_sym_match, ACTIONS 337),
    (anon_sym_async, ACTIONS 339), (anon_sym_def, ACTIONS 341), (anon_sym_LBRACK, ACTIONS 343),
    (anon_sym_LBRACE, ACTIONS 61), (anon_sym_STAR_STAR, ACTIONS 345),
    (anon_sym_global, ACTIONS 63), (anon_sym_nonlocal, ACTIONS 65), (anon_sym_exec, ACTIONS 347),
    (anon_sym_type, ACTIONS 349), (anon_sym_mut, ACTIONS 339), (anon_sym_out, ACTIONS 339),
    (anon_sym_DASH, ACTIONS 79), (anon_sym_PLUS, ACTIONS 79), (anon_sym_ref, ACTIONS 81),
    (anon_sym_var, ACTIONS 81), (anon_sym_not, ACTIONS 83), (anon_sym_TILDE, ACTIONS 79),
    (anon_sym_lambda, ACTIONS 85), (anon_sym_yield, ACTIONS 87), (sym_ellipsis, ACTIONS 89),
    (anon_sym___mlir_type, ACTIONS 91), (sym_integer, ACTIONS 93), (sym_float, ACTIONS 89),
    (anon_sym_await, ACTIONS 351), (sym_true, ACTIONS 93), (sym_false, ACTIONS 93),
    (sym_none, ACTIONS 93), (sym_comment, ACTIONS 3), (sym_line_continuation, ACTIONS 3),
    (sym__newline, ACTIONS 1081), (sym__indent, ACTIONS 1083), (sym_string_start, ACTIONS 97)]"

definition parse_table_1112 :: "(nat \<times> nat) list" where "parse_table_1112 = [
    (sym__simple_statements, STATE 5419), (sym_import_statement, STATE 12239),
    (sym_future_import_statement, STATE 12239), (sym_import_from_statement, STATE 12239),
    (sym_print_statement, STATE 12239), (sym_assert_statement, STATE 12239),
    (sym_comptime_assert_statement, STATE 12239), (sym_expression_statement, STATE 12239),
    (sym_tuple_expression, STATE 12425), (sym_named_expression, STATE 7969),
    (sym__named_expression_lhs, STATE 12752), (sym_return_statement, STATE 12239),
    (sym_delete_statement, STATE 12239), (sym_raise_statement, STATE 12239),
    (sym_pass_statement, STATE 12239), (sym_break_statement, STATE 12239),
    (sym_continue_statement, STATE 12239), (sym_global_statement, STATE 12239),
    (sym_nonlocal_statement, STATE 12239), (sym_exec_statement, STATE 12239),
    (sym_type_alias_statement, STATE 12239), (sym_parameterized_alias_statement, STATE 12239),
    (sym_pattern, STATE 8086), (sym_tuple_pattern, STATE 8101), (sym_list_pattern, STATE 8101),
    (sym_list_splat_pattern, STATE 6795), (sym_as_pattern, STATE 7969),
    (sym_expression, STATE 9623), (sym_primary_expression, STATE 7326),
    (sym_comptime_expression, STATE 7017), (sym_transfer_expression, STATE 7017),
    (sym_not_operator, STATE 7969), (sym_boolean_operator, STATE 7969),
    (sym_binary_operator, STATE 7017), (sym_unary_operator, STATE 7017),
    (sym_comparison_operator, STATE 7969), (sym_lambda, STATE 7969),
    (sym_assignment, STATE 12425), (sym_augmented_assignment, STATE 12425),
    (sym_pattern_list, STATE 8578), (sym_yield, STATE 12425), (sym_attribute, STATE 6796),
    (sym_subscript, STATE 6797), (sym_call, STATE 6768), (sym_type, STATE 10130),
    (sym_called_type, STATE 9093), (sym_function_type, STATE 9093), (sym_splat_type, STATE 9093),
    (sym_generic_type, STATE 8287), (sym_union_type, STATE 9093),
    (sym_intersection_type, STATE 9093), (sym__intersection_operand, STATE 12294),
    (sym_constrained_type, STATE 9093), (sym_member_type, STATE 8165),
    (sym_mlir_type, STATE 7017), (sym_list, STATE 7017), (sym_set, STATE 7017),
    (sym_tuple, STATE 7017), (sym_dictionary, STATE 7017), (sym_struct_literal, STATE 7017),
    (sym_list_comprehension, STATE 7017), (sym_dictionary_comprehension, STATE 7017),
    (sym_set_comprehension, STATE 7017), (sym_generator_expression, STATE 7017),
    (sym_parenthesized_expression, STATE 7017), (sym_conditional_expression, STATE 7969),
    (sym_concatenated_string, STATE 7017), (sym_string, STATE 6729), (sym_await, STATE 7017),
    (sym_identifier, ACTIONS 327), (anon_sym_import, ACTIONS 11), (anon_sym_from, ACTIONS 13),
    (anon_sym_LPAREN, ACTIONS 329), (anon_sym_STAR, ACTIONS 331), (anon_sym_print, ACTIONS 333),
    (anon_sym_comptime, ACTIONS 335), (anon_sym_assert, ACTIONS 23),
    (anon_sym___comptime_assert, ACTIONS 25), (anon_sym_return, ACTIONS 27),
    (anon_sym_del, ACTIONS 29), (anon_sym_raise, ACTIONS 31), (anon_sym_pass, ACTIONS 33),
    (anon_sym_break, ACTIONS 35), (anon_sym_continue, ACTIONS 37), (anon_sym_match, ACTIONS 337),
    (anon_sym_async, ACTIONS 339), (anon_sym_def, ACTIONS 341), (anon_sym_LBRACK, ACTIONS 343),
    (anon_sym_LBRACE, ACTIONS 61), (anon_sym_STAR_STAR, ACTIONS 345),
    (anon_sym_global, ACTIONS 63), (anon_sym_nonlocal, ACTIONS 65), (anon_sym_exec, ACTIONS 347),
    (anon_sym_type, ACTIONS 349), (anon_sym_mut, ACTIONS 339), (anon_sym_out, ACTIONS 339),
    (anon_sym_DASH, ACTIONS 79), (anon_sym_PLUS, ACTIONS 79), (anon_sym_ref, ACTIONS 81),
    (anon_sym_var, ACTIONS 81), (anon_sym_not, ACTIONS 83), (anon_sym_TILDE, ACTIONS 79),
    (anon_sym_lambda, ACTIONS 85), (anon_sym_yield, ACTIONS 87), (sym_ellipsis, ACTIONS 89),
    (anon_sym___mlir_type, ACTIONS 91), (sym_integer, ACTIONS 93), (sym_float, ACTIONS 89),
    (anon_sym_await, ACTIONS 351), (sym_true, ACTIONS 93), (sym_false, ACTIONS 93),
    (sym_none, ACTIONS 93), (sym_comment, ACTIONS 3), (sym_line_continuation, ACTIONS 3),
    (sym__newline, ACTIONS 1085), (sym__indent, ACTIONS 1087), (sym_string_start, ACTIONS 97)]"

definition parse_table_1113 :: "(nat \<times> nat) list" where "parse_table_1113 = [
    (sym__simple_statements, STATE 5786), (sym_import_statement, STATE 11814),
    (sym_future_import_statement, STATE 11814), (sym_import_from_statement, STATE 11814),
    (sym_print_statement, STATE 11814), (sym_assert_statement, STATE 11814),
    (sym_comptime_assert_statement, STATE 11814), (sym_expression_statement, STATE 11814),
    (sym_tuple_expression, STATE 12425), (sym_named_expression, STATE 7969),
    (sym__named_expression_lhs, STATE 12752), (sym_return_statement, STATE 11814),
    (sym_delete_statement, STATE 11814), (sym_raise_statement, STATE 11814),
    (sym_pass_statement, STATE 11814), (sym_break_statement, STATE 11814),
    (sym_continue_statement, STATE 11814), (sym_global_statement, STATE 11814),
    (sym_nonlocal_statement, STATE 11814), (sym_exec_statement, STATE 11814),
    (sym_type_alias_statement, STATE 11814), (sym_parameterized_alias_statement, STATE 11814),
    (sym_pattern, STATE 8086), (sym_tuple_pattern, STATE 8101), (sym_list_pattern, STATE 8101),
    (sym_list_splat_pattern, STATE 6795), (sym_as_pattern, STATE 7969),
    (sym_expression, STATE 9623), (sym_primary_expression, STATE 7326),
    (sym_comptime_expression, STATE 7017), (sym_transfer_expression, STATE 7017),
    (sym_not_operator, STATE 7969), (sym_boolean_operator, STATE 7969),
    (sym_binary_operator, STATE 7017), (sym_unary_operator, STATE 7017),
    (sym_comparison_operator, STATE 7969), (sym_lambda, STATE 7969),
    (sym_assignment, STATE 12425), (sym_augmented_assignment, STATE 12425),
    (sym_pattern_list, STATE 8578), (sym_yield, STATE 12425), (sym_attribute, STATE 6796),
    (sym_subscript, STATE 6797), (sym_call, STATE 6768), (sym_type, STATE 10130),
    (sym_called_type, STATE 9093), (sym_function_type, STATE 9093), (sym_splat_type, STATE 9093),
    (sym_generic_type, STATE 8287), (sym_union_type, STATE 9093),
    (sym_intersection_type, STATE 9093), (sym__intersection_operand, STATE 12294),
    (sym_constrained_type, STATE 9093), (sym_member_type, STATE 8165),
    (sym_mlir_type, STATE 7017), (sym_list, STATE 7017), (sym_set, STATE 7017),
    (sym_tuple, STATE 7017), (sym_dictionary, STATE 7017), (sym_struct_literal, STATE 7017),
    (sym_list_comprehension, STATE 7017), (sym_dictionary_comprehension, STATE 7017),
    (sym_set_comprehension, STATE 7017), (sym_generator_expression, STATE 7017),
    (sym_parenthesized_expression, STATE 7017), (sym_conditional_expression, STATE 7969),
    (sym_concatenated_string, STATE 7017), (sym_string, STATE 6729), (sym_await, STATE 7017),
    (sym_identifier, ACTIONS 327), (anon_sym_import, ACTIONS 11), (anon_sym_from, ACTIONS 13),
    (anon_sym_LPAREN, ACTIONS 329), (anon_sym_STAR, ACTIONS 331), (anon_sym_print, ACTIONS 333),
    (anon_sym_comptime, ACTIONS 335), (anon_sym_assert, ACTIONS 23),
    (anon_sym___comptime_assert, ACTIONS 25), (anon_sym_return, ACTIONS 27),
    (anon_sym_del, ACTIONS 29), (anon_sym_raise, ACTIONS 31), (anon_sym_pass, ACTIONS 33),
    (anon_sym_break, ACTIONS 35), (anon_sym_continue, ACTIONS 37), (anon_sym_match, ACTIONS 337),
    (anon_sym_async, ACTIONS 339), (anon_sym_def, ACTIONS 341), (anon_sym_LBRACK, ACTIONS 343),
    (anon_sym_LBRACE, ACTIONS 61), (anon_sym_STAR_STAR, ACTIONS 345),
    (anon_sym_global, ACTIONS 63), (anon_sym_nonlocal, ACTIONS 65), (anon_sym_exec, ACTIONS 347),
    (anon_sym_type, ACTIONS 349), (anon_sym_mut, ACTIONS 339), (anon_sym_out, ACTIONS 339),
    (anon_sym_DASH, ACTIONS 79), (anon_sym_PLUS, ACTIONS 79), (anon_sym_ref, ACTIONS 81),
    (anon_sym_var, ACTIONS 81), (anon_sym_not, ACTIONS 83), (anon_sym_TILDE, ACTIONS 79),
    (anon_sym_lambda, ACTIONS 85), (anon_sym_yield, ACTIONS 87), (sym_ellipsis, ACTIONS 89),
    (anon_sym___mlir_type, ACTIONS 91), (sym_integer, ACTIONS 93), (sym_float, ACTIONS 89),
    (anon_sym_await, ACTIONS 351), (sym_true, ACTIONS 93), (sym_false, ACTIONS 93),
    (sym_none, ACTIONS 93), (sym_comment, ACTIONS 3), (sym_line_continuation, ACTIONS 3),
    (sym__newline, ACTIONS 1089), (sym__indent, ACTIONS 1091), (sym_string_start, ACTIONS 97)]"

definition parse_table_1114 :: "(nat \<times> nat) list" where "parse_table_1114 = [
    (sym__simple_statements, STATE 6197), (sym_import_statement, STATE 12239),
    (sym_future_import_statement, STATE 12239), (sym_import_from_statement, STATE 12239),
    (sym_print_statement, STATE 12239), (sym_assert_statement, STATE 12239),
    (sym_comptime_assert_statement, STATE 12239), (sym_expression_statement, STATE 12239),
    (sym_tuple_expression, STATE 12425), (sym_named_expression, STATE 7969),
    (sym__named_expression_lhs, STATE 12752), (sym_return_statement, STATE 12239),
    (sym_delete_statement, STATE 12239), (sym_raise_statement, STATE 12239),
    (sym_pass_statement, STATE 12239), (sym_break_statement, STATE 12239),
    (sym_continue_statement, STATE 12239), (sym_global_statement, STATE 12239),
    (sym_nonlocal_statement, STATE 12239), (sym_exec_statement, STATE 12239),
    (sym_type_alias_statement, STATE 12239), (sym_parameterized_alias_statement, STATE 12239),
    (sym_pattern, STATE 8086), (sym_tuple_pattern, STATE 8101), (sym_list_pattern, STATE 8101),
    (sym_list_splat_pattern, STATE 6795), (sym_as_pattern, STATE 7969),
    (sym_expression, STATE 9623), (sym_primary_expression, STATE 7326),
    (sym_comptime_expression, STATE 7017), (sym_transfer_expression, STATE 7017),
    (sym_not_operator, STATE 7969), (sym_boolean_operator, STATE 7969),
    (sym_binary_operator, STATE 7017), (sym_unary_operator, STATE 7017),
    (sym_comparison_operator, STATE 7969), (sym_lambda, STATE 7969),
    (sym_assignment, STATE 12425), (sym_augmented_assignment, STATE 12425),
    (sym_pattern_list, STATE 8578), (sym_yield, STATE 12425), (sym_attribute, STATE 6796),
    (sym_subscript, STATE 6797), (sym_call, STATE 6768), (sym_type, STATE 10130),
    (sym_called_type, STATE 9093), (sym_function_type, STATE 9093), (sym_splat_type, STATE 9093),
    (sym_generic_type, STATE 8287), (sym_union_type, STATE 9093),
    (sym_intersection_type, STATE 9093), (sym__intersection_operand, STATE 12294),
    (sym_constrained_type, STATE 9093), (sym_member_type, STATE 8165),
    (sym_mlir_type, STATE 7017), (sym_list, STATE 7017), (sym_set, STATE 7017),
    (sym_tuple, STATE 7017), (sym_dictionary, STATE 7017), (sym_struct_literal, STATE 7017),
    (sym_list_comprehension, STATE 7017), (sym_dictionary_comprehension, STATE 7017),
    (sym_set_comprehension, STATE 7017), (sym_generator_expression, STATE 7017),
    (sym_parenthesized_expression, STATE 7017), (sym_conditional_expression, STATE 7969),
    (sym_concatenated_string, STATE 7017), (sym_string, STATE 6729), (sym_await, STATE 7017),
    (sym_identifier, ACTIONS 327), (anon_sym_import, ACTIONS 11), (anon_sym_from, ACTIONS 13),
    (anon_sym_LPAREN, ACTIONS 329), (anon_sym_STAR, ACTIONS 331), (anon_sym_print, ACTIONS 333),
    (anon_sym_comptime, ACTIONS 335), (anon_sym_assert, ACTIONS 23),
    (anon_sym___comptime_assert, ACTIONS 25), (anon_sym_return, ACTIONS 27),
    (anon_sym_del, ACTIONS 29), (anon_sym_raise, ACTIONS 31), (anon_sym_pass, ACTIONS 33),
    (anon_sym_break, ACTIONS 35), (anon_sym_continue, ACTIONS 37), (anon_sym_match, ACTIONS 337),
    (anon_sym_async, ACTIONS 339), (anon_sym_def, ACTIONS 341), (anon_sym_LBRACK, ACTIONS 343),
    (anon_sym_LBRACE, ACTIONS 61), (anon_sym_STAR_STAR, ACTIONS 345),
    (anon_sym_global, ACTIONS 63), (anon_sym_nonlocal, ACTIONS 65), (anon_sym_exec, ACTIONS 347),
    (anon_sym_type, ACTIONS 349), (anon_sym_mut, ACTIONS 339), (anon_sym_out, ACTIONS 339),
    (anon_sym_DASH, ACTIONS 79), (anon_sym_PLUS, ACTIONS 79), (anon_sym_ref, ACTIONS 81),
    (anon_sym_var, ACTIONS 81), (anon_sym_not, ACTIONS 83), (anon_sym_TILDE, ACTIONS 79),
    (anon_sym_lambda, ACTIONS 85), (anon_sym_yield, ACTIONS 87), (sym_ellipsis, ACTIONS 89),
    (anon_sym___mlir_type, ACTIONS 91), (sym_integer, ACTIONS 93), (sym_float, ACTIONS 89),
    (anon_sym_await, ACTIONS 351), (sym_true, ACTIONS 93), (sym_false, ACTIONS 93),
    (sym_none, ACTIONS 93), (sym_comment, ACTIONS 3), (sym_line_continuation, ACTIONS 3),
    (sym__newline, ACTIONS 1093), (sym__indent, ACTIONS 1095), (sym_string_start, ACTIONS 97)]"

definition parse_table_1115 :: "(nat \<times> nat) list" where "parse_table_1115 = [
    (sym__simple_statements, STATE 5424), (sym_import_statement, STATE 12239),
    (sym_future_import_statement, STATE 12239), (sym_import_from_statement, STATE 12239),
    (sym_print_statement, STATE 12239), (sym_assert_statement, STATE 12239),
    (sym_comptime_assert_statement, STATE 12239), (sym_expression_statement, STATE 12239),
    (sym_tuple_expression, STATE 12425), (sym_named_expression, STATE 7969),
    (sym__named_expression_lhs, STATE 12752), (sym_return_statement, STATE 12239),
    (sym_delete_statement, STATE 12239), (sym_raise_statement, STATE 12239),
    (sym_pass_statement, STATE 12239), (sym_break_statement, STATE 12239),
    (sym_continue_statement, STATE 12239), (sym_global_statement, STATE 12239),
    (sym_nonlocal_statement, STATE 12239), (sym_exec_statement, STATE 12239),
    (sym_type_alias_statement, STATE 12239), (sym_parameterized_alias_statement, STATE 12239),
    (sym_pattern, STATE 8086), (sym_tuple_pattern, STATE 8101), (sym_list_pattern, STATE 8101),
    (sym_list_splat_pattern, STATE 6795), (sym_as_pattern, STATE 7969),
    (sym_expression, STATE 9623), (sym_primary_expression, STATE 7326),
    (sym_comptime_expression, STATE 7017), (sym_transfer_expression, STATE 7017),
    (sym_not_operator, STATE 7969), (sym_boolean_operator, STATE 7969),
    (sym_binary_operator, STATE 7017), (sym_unary_operator, STATE 7017),
    (sym_comparison_operator, STATE 7969), (sym_lambda, STATE 7969),
    (sym_assignment, STATE 12425), (sym_augmented_assignment, STATE 12425),
    (sym_pattern_list, STATE 8578), (sym_yield, STATE 12425), (sym_attribute, STATE 6796),
    (sym_subscript, STATE 6797), (sym_call, STATE 6768), (sym_type, STATE 10130),
    (sym_called_type, STATE 9093), (sym_function_type, STATE 9093), (sym_splat_type, STATE 9093),
    (sym_generic_type, STATE 8287), (sym_union_type, STATE 9093),
    (sym_intersection_type, STATE 9093), (sym__intersection_operand, STATE 12294),
    (sym_constrained_type, STATE 9093), (sym_member_type, STATE 8165),
    (sym_mlir_type, STATE 7017), (sym_list, STATE 7017), (sym_set, STATE 7017),
    (sym_tuple, STATE 7017), (sym_dictionary, STATE 7017), (sym_struct_literal, STATE 7017),
    (sym_list_comprehension, STATE 7017), (sym_dictionary_comprehension, STATE 7017),
    (sym_set_comprehension, STATE 7017), (sym_generator_expression, STATE 7017),
    (sym_parenthesized_expression, STATE 7017), (sym_conditional_expression, STATE 7969),
    (sym_concatenated_string, STATE 7017), (sym_string, STATE 6729), (sym_await, STATE 7017),
    (sym_identifier, ACTIONS 327), (anon_sym_import, ACTIONS 11), (anon_sym_from, ACTIONS 13),
    (anon_sym_LPAREN, ACTIONS 329), (anon_sym_STAR, ACTIONS 331), (anon_sym_print, ACTIONS 333),
    (anon_sym_comptime, ACTIONS 335), (anon_sym_assert, ACTIONS 23),
    (anon_sym___comptime_assert, ACTIONS 25), (anon_sym_return, ACTIONS 27),
    (anon_sym_del, ACTIONS 29), (anon_sym_raise, ACTIONS 31), (anon_sym_pass, ACTIONS 33),
    (anon_sym_break, ACTIONS 35), (anon_sym_continue, ACTIONS 37), (anon_sym_match, ACTIONS 337),
    (anon_sym_async, ACTIONS 339), (anon_sym_def, ACTIONS 341), (anon_sym_LBRACK, ACTIONS 343),
    (anon_sym_LBRACE, ACTIONS 61), (anon_sym_STAR_STAR, ACTIONS 345),
    (anon_sym_global, ACTIONS 63), (anon_sym_nonlocal, ACTIONS 65), (anon_sym_exec, ACTIONS 347),
    (anon_sym_type, ACTIONS 349), (anon_sym_mut, ACTIONS 339), (anon_sym_out, ACTIONS 339),
    (anon_sym_DASH, ACTIONS 79), (anon_sym_PLUS, ACTIONS 79), (anon_sym_ref, ACTIONS 81),
    (anon_sym_var, ACTIONS 81), (anon_sym_not, ACTIONS 83), (anon_sym_TILDE, ACTIONS 79),
    (anon_sym_lambda, ACTIONS 85), (anon_sym_yield, ACTIONS 87), (sym_ellipsis, ACTIONS 89),
    (anon_sym___mlir_type, ACTIONS 91), (sym_integer, ACTIONS 93), (sym_float, ACTIONS 89),
    (anon_sym_await, ACTIONS 351), (sym_true, ACTIONS 93), (sym_false, ACTIONS 93),
    (sym_none, ACTIONS 93), (sym_comment, ACTIONS 3), (sym_line_continuation, ACTIONS 3),
    (sym__newline, ACTIONS 1097), (sym__indent, ACTIONS 1099), (sym_string_start, ACTIONS 97)]"

definition parse_table_1116 :: "(nat \<times> nat) list" where "parse_table_1116 = [
    (sym__simple_statements, STATE 6658), (sym_import_statement, STATE 11814),
    (sym_future_import_statement, STATE 11814), (sym_import_from_statement, STATE 11814),
    (sym_print_statement, STATE 11814), (sym_assert_statement, STATE 11814),
    (sym_comptime_assert_statement, STATE 11814), (sym_expression_statement, STATE 11814),
    (sym_tuple_expression, STATE 12425), (sym_named_expression, STATE 7969),
    (sym__named_expression_lhs, STATE 12752), (sym_return_statement, STATE 11814),
    (sym_delete_statement, STATE 11814), (sym_raise_statement, STATE 11814),
    (sym_pass_statement, STATE 11814), (sym_break_statement, STATE 11814),
    (sym_continue_statement, STATE 11814), (sym_global_statement, STATE 11814),
    (sym_nonlocal_statement, STATE 11814), (sym_exec_statement, STATE 11814),
    (sym_type_alias_statement, STATE 11814), (sym_parameterized_alias_statement, STATE 11814),
    (sym_pattern, STATE 8086), (sym_tuple_pattern, STATE 8101), (sym_list_pattern, STATE 8101),
    (sym_list_splat_pattern, STATE 6795), (sym_as_pattern, STATE 7969),
    (sym_expression, STATE 9623), (sym_primary_expression, STATE 7326),
    (sym_comptime_expression, STATE 7017), (sym_transfer_expression, STATE 7017),
    (sym_not_operator, STATE 7969), (sym_boolean_operator, STATE 7969),
    (sym_binary_operator, STATE 7017), (sym_unary_operator, STATE 7017),
    (sym_comparison_operator, STATE 7969), (sym_lambda, STATE 7969),
    (sym_assignment, STATE 12425), (sym_augmented_assignment, STATE 12425),
    (sym_pattern_list, STATE 8578), (sym_yield, STATE 12425), (sym_attribute, STATE 6796),
    (sym_subscript, STATE 6797), (sym_call, STATE 6768), (sym_type, STATE 10130),
    (sym_called_type, STATE 9093), (sym_function_type, STATE 9093), (sym_splat_type, STATE 9093),
    (sym_generic_type, STATE 8287), (sym_union_type, STATE 9093),
    (sym_intersection_type, STATE 9093), (sym__intersection_operand, STATE 12294),
    (sym_constrained_type, STATE 9093), (sym_member_type, STATE 8165),
    (sym_mlir_type, STATE 7017), (sym_list, STATE 7017), (sym_set, STATE 7017),
    (sym_tuple, STATE 7017), (sym_dictionary, STATE 7017), (sym_struct_literal, STATE 7017),
    (sym_list_comprehension, STATE 7017), (sym_dictionary_comprehension, STATE 7017),
    (sym_set_comprehension, STATE 7017), (sym_generator_expression, STATE 7017),
    (sym_parenthesized_expression, STATE 7017), (sym_conditional_expression, STATE 7969),
    (sym_concatenated_string, STATE 7017), (sym_string, STATE 6729), (sym_await, STATE 7017),
    (sym_identifier, ACTIONS 327), (anon_sym_import, ACTIONS 11), (anon_sym_from, ACTIONS 13),
    (anon_sym_LPAREN, ACTIONS 329), (anon_sym_STAR, ACTIONS 331), (anon_sym_print, ACTIONS 333),
    (anon_sym_comptime, ACTIONS 335), (anon_sym_assert, ACTIONS 23),
    (anon_sym___comptime_assert, ACTIONS 25), (anon_sym_return, ACTIONS 27),
    (anon_sym_del, ACTIONS 29), (anon_sym_raise, ACTIONS 31), (anon_sym_pass, ACTIONS 33),
    (anon_sym_break, ACTIONS 35), (anon_sym_continue, ACTIONS 37), (anon_sym_match, ACTIONS 337),
    (anon_sym_async, ACTIONS 339), (anon_sym_def, ACTIONS 341), (anon_sym_LBRACK, ACTIONS 343),
    (anon_sym_LBRACE, ACTIONS 61), (anon_sym_STAR_STAR, ACTIONS 345),
    (anon_sym_global, ACTIONS 63), (anon_sym_nonlocal, ACTIONS 65), (anon_sym_exec, ACTIONS 347),
    (anon_sym_type, ACTIONS 349), (anon_sym_mut, ACTIONS 339), (anon_sym_out, ACTIONS 339),
    (anon_sym_DASH, ACTIONS 79), (anon_sym_PLUS, ACTIONS 79), (anon_sym_ref, ACTIONS 81),
    (anon_sym_var, ACTIONS 81), (anon_sym_not, ACTIONS 83), (anon_sym_TILDE, ACTIONS 79),
    (anon_sym_lambda, ACTIONS 85), (anon_sym_yield, ACTIONS 87), (sym_ellipsis, ACTIONS 89),
    (anon_sym___mlir_type, ACTIONS 91), (sym_integer, ACTIONS 93), (sym_float, ACTIONS 89),
    (anon_sym_await, ACTIONS 351), (sym_true, ACTIONS 93), (sym_false, ACTIONS 93),
    (sym_none, ACTIONS 93), (sym_comment, ACTIONS 3), (sym_line_continuation, ACTIONS 3),
    (sym__newline, ACTIONS 1101), (sym__indent, ACTIONS 1103), (sym_string_start, ACTIONS 97)]"

definition parse_table_1117 :: "(nat \<times> nat) list" where "parse_table_1117 = [
    (sym__simple_statements, STATE 5140), (sym_import_statement, STATE 12239),
    (sym_future_import_statement, STATE 12239), (sym_import_from_statement, STATE 12239),
    (sym_print_statement, STATE 12239), (sym_assert_statement, STATE 12239),
    (sym_comptime_assert_statement, STATE 12239), (sym_expression_statement, STATE 12239),
    (sym_tuple_expression, STATE 12425), (sym_named_expression, STATE 7969),
    (sym__named_expression_lhs, STATE 12752), (sym_return_statement, STATE 12239),
    (sym_delete_statement, STATE 12239), (sym_raise_statement, STATE 12239),
    (sym_pass_statement, STATE 12239), (sym_break_statement, STATE 12239),
    (sym_continue_statement, STATE 12239), (sym_global_statement, STATE 12239),
    (sym_nonlocal_statement, STATE 12239), (sym_exec_statement, STATE 12239),
    (sym_type_alias_statement, STATE 12239), (sym_parameterized_alias_statement, STATE 12239),
    (sym_pattern, STATE 8086), (sym_tuple_pattern, STATE 8101), (sym_list_pattern, STATE 8101),
    (sym_list_splat_pattern, STATE 6795), (sym_as_pattern, STATE 7969),
    (sym_expression, STATE 9623), (sym_primary_expression, STATE 7326),
    (sym_comptime_expression, STATE 7017), (sym_transfer_expression, STATE 7017),
    (sym_not_operator, STATE 7969), (sym_boolean_operator, STATE 7969),
    (sym_binary_operator, STATE 7017), (sym_unary_operator, STATE 7017),
    (sym_comparison_operator, STATE 7969), (sym_lambda, STATE 7969),
    (sym_assignment, STATE 12425), (sym_augmented_assignment, STATE 12425),
    (sym_pattern_list, STATE 8578), (sym_yield, STATE 12425), (sym_attribute, STATE 6796),
    (sym_subscript, STATE 6797), (sym_call, STATE 6768), (sym_type, STATE 10130),
    (sym_called_type, STATE 9093), (sym_function_type, STATE 9093), (sym_splat_type, STATE 9093),
    (sym_generic_type, STATE 8287), (sym_union_type, STATE 9093),
    (sym_intersection_type, STATE 9093), (sym__intersection_operand, STATE 12294),
    (sym_constrained_type, STATE 9093), (sym_member_type, STATE 8165),
    (sym_mlir_type, STATE 7017), (sym_list, STATE 7017), (sym_set, STATE 7017),
    (sym_tuple, STATE 7017), (sym_dictionary, STATE 7017), (sym_struct_literal, STATE 7017),
    (sym_list_comprehension, STATE 7017), (sym_dictionary_comprehension, STATE 7017),
    (sym_set_comprehension, STATE 7017), (sym_generator_expression, STATE 7017),
    (sym_parenthesized_expression, STATE 7017), (sym_conditional_expression, STATE 7969),
    (sym_concatenated_string, STATE 7017), (sym_string, STATE 6729), (sym_await, STATE 7017),
    (sym_identifier, ACTIONS 327), (anon_sym_import, ACTIONS 11), (anon_sym_from, ACTIONS 13),
    (anon_sym_LPAREN, ACTIONS 329), (anon_sym_STAR, ACTIONS 331), (anon_sym_print, ACTIONS 333),
    (anon_sym_comptime, ACTIONS 335), (anon_sym_assert, ACTIONS 23),
    (anon_sym___comptime_assert, ACTIONS 25), (anon_sym_return, ACTIONS 27),
    (anon_sym_del, ACTIONS 29), (anon_sym_raise, ACTIONS 31), (anon_sym_pass, ACTIONS 33),
    (anon_sym_break, ACTIONS 35), (anon_sym_continue, ACTIONS 37), (anon_sym_match, ACTIONS 337),
    (anon_sym_async, ACTIONS 339), (anon_sym_def, ACTIONS 341), (anon_sym_LBRACK, ACTIONS 343),
    (anon_sym_LBRACE, ACTIONS 61), (anon_sym_STAR_STAR, ACTIONS 345),
    (anon_sym_global, ACTIONS 63), (anon_sym_nonlocal, ACTIONS 65), (anon_sym_exec, ACTIONS 347),
    (anon_sym_type, ACTIONS 349), (anon_sym_mut, ACTIONS 339), (anon_sym_out, ACTIONS 339),
    (anon_sym_DASH, ACTIONS 79), (anon_sym_PLUS, ACTIONS 79), (anon_sym_ref, ACTIONS 81),
    (anon_sym_var, ACTIONS 81), (anon_sym_not, ACTIONS 83), (anon_sym_TILDE, ACTIONS 79),
    (anon_sym_lambda, ACTIONS 85), (anon_sym_yield, ACTIONS 87), (sym_ellipsis, ACTIONS 89),
    (anon_sym___mlir_type, ACTIONS 91), (sym_integer, ACTIONS 93), (sym_float, ACTIONS 89),
    (anon_sym_await, ACTIONS 351), (sym_true, ACTIONS 93), (sym_false, ACTIONS 93),
    (sym_none, ACTIONS 93), (sym_comment, ACTIONS 3), (sym_line_continuation, ACTIONS 3),
    (sym__newline, ACTIONS 1105), (sym__indent, ACTIONS 1107), (sym_string_start, ACTIONS 97)]"

definition parse_table_1118 :: "(nat \<times> nat) list" where "parse_table_1118 = [
    (sym__simple_statements, STATE 6666), (sym_import_statement, STATE 11814),
    (sym_future_import_statement, STATE 11814), (sym_import_from_statement, STATE 11814),
    (sym_print_statement, STATE 11814), (sym_assert_statement, STATE 11814),
    (sym_comptime_assert_statement, STATE 11814), (sym_expression_statement, STATE 11814),
    (sym_tuple_expression, STATE 12425), (sym_named_expression, STATE 7969),
    (sym__named_expression_lhs, STATE 12752), (sym_return_statement, STATE 11814),
    (sym_delete_statement, STATE 11814), (sym_raise_statement, STATE 11814),
    (sym_pass_statement, STATE 11814), (sym_break_statement, STATE 11814),
    (sym_continue_statement, STATE 11814), (sym_global_statement, STATE 11814),
    (sym_nonlocal_statement, STATE 11814), (sym_exec_statement, STATE 11814),
    (sym_type_alias_statement, STATE 11814), (sym_parameterized_alias_statement, STATE 11814),
    (sym_pattern, STATE 8086), (sym_tuple_pattern, STATE 8101), (sym_list_pattern, STATE 8101),
    (sym_list_splat_pattern, STATE 6795), (sym_as_pattern, STATE 7969),
    (sym_expression, STATE 9623), (sym_primary_expression, STATE 7326),
    (sym_comptime_expression, STATE 7017), (sym_transfer_expression, STATE 7017),
    (sym_not_operator, STATE 7969), (sym_boolean_operator, STATE 7969),
    (sym_binary_operator, STATE 7017), (sym_unary_operator, STATE 7017),
    (sym_comparison_operator, STATE 7969), (sym_lambda, STATE 7969),
    (sym_assignment, STATE 12425), (sym_augmented_assignment, STATE 12425),
    (sym_pattern_list, STATE 8578), (sym_yield, STATE 12425), (sym_attribute, STATE 6796),
    (sym_subscript, STATE 6797), (sym_call, STATE 6768), (sym_type, STATE 10130),
    (sym_called_type, STATE 9093), (sym_function_type, STATE 9093), (sym_splat_type, STATE 9093),
    (sym_generic_type, STATE 8287), (sym_union_type, STATE 9093),
    (sym_intersection_type, STATE 9093), (sym__intersection_operand, STATE 12294),
    (sym_constrained_type, STATE 9093), (sym_member_type, STATE 8165),
    (sym_mlir_type, STATE 7017), (sym_list, STATE 7017), (sym_set, STATE 7017),
    (sym_tuple, STATE 7017), (sym_dictionary, STATE 7017), (sym_struct_literal, STATE 7017),
    (sym_list_comprehension, STATE 7017), (sym_dictionary_comprehension, STATE 7017),
    (sym_set_comprehension, STATE 7017), (sym_generator_expression, STATE 7017),
    (sym_parenthesized_expression, STATE 7017), (sym_conditional_expression, STATE 7969),
    (sym_concatenated_string, STATE 7017), (sym_string, STATE 6729), (sym_await, STATE 7017),
    (sym_identifier, ACTIONS 327), (anon_sym_import, ACTIONS 11), (anon_sym_from, ACTIONS 13),
    (anon_sym_LPAREN, ACTIONS 329), (anon_sym_STAR, ACTIONS 331), (anon_sym_print, ACTIONS 333),
    (anon_sym_comptime, ACTIONS 335), (anon_sym_assert, ACTIONS 23),
    (anon_sym___comptime_assert, ACTIONS 25), (anon_sym_return, ACTIONS 27),
    (anon_sym_del, ACTIONS 29), (anon_sym_raise, ACTIONS 31), (anon_sym_pass, ACTIONS 33),
    (anon_sym_break, ACTIONS 35), (anon_sym_continue, ACTIONS 37), (anon_sym_match, ACTIONS 337),
    (anon_sym_async, ACTIONS 339), (anon_sym_def, ACTIONS 341), (anon_sym_LBRACK, ACTIONS 343),
    (anon_sym_LBRACE, ACTIONS 61), (anon_sym_STAR_STAR, ACTIONS 345),
    (anon_sym_global, ACTIONS 63), (anon_sym_nonlocal, ACTIONS 65), (anon_sym_exec, ACTIONS 347),
    (anon_sym_type, ACTIONS 349), (anon_sym_mut, ACTIONS 339), (anon_sym_out, ACTIONS 339),
    (anon_sym_DASH, ACTIONS 79), (anon_sym_PLUS, ACTIONS 79), (anon_sym_ref, ACTIONS 81),
    (anon_sym_var, ACTIONS 81), (anon_sym_not, ACTIONS 83), (anon_sym_TILDE, ACTIONS 79),
    (anon_sym_lambda, ACTIONS 85), (anon_sym_yield, ACTIONS 87), (sym_ellipsis, ACTIONS 89),
    (anon_sym___mlir_type, ACTIONS 91), (sym_integer, ACTIONS 93), (sym_float, ACTIONS 89),
    (anon_sym_await, ACTIONS 351), (sym_true, ACTIONS 93), (sym_false, ACTIONS 93),
    (sym_none, ACTIONS 93), (sym_comment, ACTIONS 3), (sym_line_continuation, ACTIONS 3),
    (sym__newline, ACTIONS 1109), (sym__indent, ACTIONS 1111), (sym_string_start, ACTIONS 97)]"

definition parse_table_1119 :: "(nat \<times> nat) list" where "parse_table_1119 = [
    (sym__simple_statements, STATE 6668), (sym_import_statement, STATE 11814),
    (sym_future_import_statement, STATE 11814), (sym_import_from_statement, STATE 11814),
    (sym_print_statement, STATE 11814), (sym_assert_statement, STATE 11814),
    (sym_comptime_assert_statement, STATE 11814), (sym_expression_statement, STATE 11814),
    (sym_tuple_expression, STATE 12425), (sym_named_expression, STATE 7969),
    (sym__named_expression_lhs, STATE 12752), (sym_return_statement, STATE 11814),
    (sym_delete_statement, STATE 11814), (sym_raise_statement, STATE 11814),
    (sym_pass_statement, STATE 11814), (sym_break_statement, STATE 11814),
    (sym_continue_statement, STATE 11814), (sym_global_statement, STATE 11814),
    (sym_nonlocal_statement, STATE 11814), (sym_exec_statement, STATE 11814),
    (sym_type_alias_statement, STATE 11814), (sym_parameterized_alias_statement, STATE 11814),
    (sym_pattern, STATE 8086), (sym_tuple_pattern, STATE 8101), (sym_list_pattern, STATE 8101),
    (sym_list_splat_pattern, STATE 6795), (sym_as_pattern, STATE 7969),
    (sym_expression, STATE 9623), (sym_primary_expression, STATE 7326),
    (sym_comptime_expression, STATE 7017), (sym_transfer_expression, STATE 7017),
    (sym_not_operator, STATE 7969), (sym_boolean_operator, STATE 7969),
    (sym_binary_operator, STATE 7017), (sym_unary_operator, STATE 7017),
    (sym_comparison_operator, STATE 7969), (sym_lambda, STATE 7969),
    (sym_assignment, STATE 12425), (sym_augmented_assignment, STATE 12425),
    (sym_pattern_list, STATE 8578), (sym_yield, STATE 12425), (sym_attribute, STATE 6796),
    (sym_subscript, STATE 6797), (sym_call, STATE 6768), (sym_type, STATE 10130),
    (sym_called_type, STATE 9093), (sym_function_type, STATE 9093), (sym_splat_type, STATE 9093),
    (sym_generic_type, STATE 8287), (sym_union_type, STATE 9093),
    (sym_intersection_type, STATE 9093), (sym__intersection_operand, STATE 12294),
    (sym_constrained_type, STATE 9093), (sym_member_type, STATE 8165),
    (sym_mlir_type, STATE 7017), (sym_list, STATE 7017), (sym_set, STATE 7017),
    (sym_tuple, STATE 7017), (sym_dictionary, STATE 7017), (sym_struct_literal, STATE 7017),
    (sym_list_comprehension, STATE 7017), (sym_dictionary_comprehension, STATE 7017),
    (sym_set_comprehension, STATE 7017), (sym_generator_expression, STATE 7017),
    (sym_parenthesized_expression, STATE 7017), (sym_conditional_expression, STATE 7969),
    (sym_concatenated_string, STATE 7017), (sym_string, STATE 6729), (sym_await, STATE 7017),
    (sym_identifier, ACTIONS 327), (anon_sym_import, ACTIONS 11), (anon_sym_from, ACTIONS 13),
    (anon_sym_LPAREN, ACTIONS 329), (anon_sym_STAR, ACTIONS 331), (anon_sym_print, ACTIONS 333),
    (anon_sym_comptime, ACTIONS 335), (anon_sym_assert, ACTIONS 23),
    (anon_sym___comptime_assert, ACTIONS 25), (anon_sym_return, ACTIONS 27),
    (anon_sym_del, ACTIONS 29), (anon_sym_raise, ACTIONS 31), (anon_sym_pass, ACTIONS 33),
    (anon_sym_break, ACTIONS 35), (anon_sym_continue, ACTIONS 37), (anon_sym_match, ACTIONS 337),
    (anon_sym_async, ACTIONS 339), (anon_sym_def, ACTIONS 341), (anon_sym_LBRACK, ACTIONS 343),
    (anon_sym_LBRACE, ACTIONS 61), (anon_sym_STAR_STAR, ACTIONS 345),
    (anon_sym_global, ACTIONS 63), (anon_sym_nonlocal, ACTIONS 65), (anon_sym_exec, ACTIONS 347),
    (anon_sym_type, ACTIONS 349), (anon_sym_mut, ACTIONS 339), (anon_sym_out, ACTIONS 339),
    (anon_sym_DASH, ACTIONS 79), (anon_sym_PLUS, ACTIONS 79), (anon_sym_ref, ACTIONS 81),
    (anon_sym_var, ACTIONS 81), (anon_sym_not, ACTIONS 83), (anon_sym_TILDE, ACTIONS 79),
    (anon_sym_lambda, ACTIONS 85), (anon_sym_yield, ACTIONS 87), (sym_ellipsis, ACTIONS 89),
    (anon_sym___mlir_type, ACTIONS 91), (sym_integer, ACTIONS 93), (sym_float, ACTIONS 89),
    (anon_sym_await, ACTIONS 351), (sym_true, ACTIONS 93), (sym_false, ACTIONS 93),
    (sym_none, ACTIONS 93), (sym_comment, ACTIONS 3), (sym_line_continuation, ACTIONS 3),
    (sym__newline, ACTIONS 1113), (sym__indent, ACTIONS 1115), (sym_string_start, ACTIONS 97)]"

definition parse_table_1120 :: "(nat \<times> nat) list" where "parse_table_1120 = [
    (sym__simple_statements, STATE 5798), (sym_import_statement, STATE 11814),
    (sym_future_import_statement, STATE 11814), (sym_import_from_statement, STATE 11814),
    (sym_print_statement, STATE 11814), (sym_assert_statement, STATE 11814),
    (sym_comptime_assert_statement, STATE 11814), (sym_expression_statement, STATE 11814),
    (sym_tuple_expression, STATE 12425), (sym_named_expression, STATE 7969),
    (sym__named_expression_lhs, STATE 12752), (sym_return_statement, STATE 11814),
    (sym_delete_statement, STATE 11814), (sym_raise_statement, STATE 11814),
    (sym_pass_statement, STATE 11814), (sym_break_statement, STATE 11814),
    (sym_continue_statement, STATE 11814), (sym_global_statement, STATE 11814),
    (sym_nonlocal_statement, STATE 11814), (sym_exec_statement, STATE 11814),
    (sym_type_alias_statement, STATE 11814), (sym_parameterized_alias_statement, STATE 11814),
    (sym_pattern, STATE 8086), (sym_tuple_pattern, STATE 8101), (sym_list_pattern, STATE 8101),
    (sym_list_splat_pattern, STATE 6795), (sym_as_pattern, STATE 7969),
    (sym_expression, STATE 9623), (sym_primary_expression, STATE 7326),
    (sym_comptime_expression, STATE 7017), (sym_transfer_expression, STATE 7017),
    (sym_not_operator, STATE 7969), (sym_boolean_operator, STATE 7969),
    (sym_binary_operator, STATE 7017), (sym_unary_operator, STATE 7017),
    (sym_comparison_operator, STATE 7969), (sym_lambda, STATE 7969),
    (sym_assignment, STATE 12425), (sym_augmented_assignment, STATE 12425),
    (sym_pattern_list, STATE 8578), (sym_yield, STATE 12425), (sym_attribute, STATE 6796),
    (sym_subscript, STATE 6797), (sym_call, STATE 6768), (sym_type, STATE 10130),
    (sym_called_type, STATE 9093), (sym_function_type, STATE 9093), (sym_splat_type, STATE 9093),
    (sym_generic_type, STATE 8287), (sym_union_type, STATE 9093),
    (sym_intersection_type, STATE 9093), (sym__intersection_operand, STATE 12294),
    (sym_constrained_type, STATE 9093), (sym_member_type, STATE 8165),
    (sym_mlir_type, STATE 7017), (sym_list, STATE 7017), (sym_set, STATE 7017),
    (sym_tuple, STATE 7017), (sym_dictionary, STATE 7017), (sym_struct_literal, STATE 7017),
    (sym_list_comprehension, STATE 7017), (sym_dictionary_comprehension, STATE 7017),
    (sym_set_comprehension, STATE 7017), (sym_generator_expression, STATE 7017),
    (sym_parenthesized_expression, STATE 7017), (sym_conditional_expression, STATE 7969),
    (sym_concatenated_string, STATE 7017), (sym_string, STATE 6729), (sym_await, STATE 7017),
    (sym_identifier, ACTIONS 327), (anon_sym_import, ACTIONS 11), (anon_sym_from, ACTIONS 13),
    (anon_sym_LPAREN, ACTIONS 329), (anon_sym_STAR, ACTIONS 331), (anon_sym_print, ACTIONS 333),
    (anon_sym_comptime, ACTIONS 335), (anon_sym_assert, ACTIONS 23),
    (anon_sym___comptime_assert, ACTIONS 25), (anon_sym_return, ACTIONS 27),
    (anon_sym_del, ACTIONS 29), (anon_sym_raise, ACTIONS 31), (anon_sym_pass, ACTIONS 33),
    (anon_sym_break, ACTIONS 35), (anon_sym_continue, ACTIONS 37), (anon_sym_match, ACTIONS 337),
    (anon_sym_async, ACTIONS 339), (anon_sym_def, ACTIONS 341), (anon_sym_LBRACK, ACTIONS 343),
    (anon_sym_LBRACE, ACTIONS 61), (anon_sym_STAR_STAR, ACTIONS 345),
    (anon_sym_global, ACTIONS 63), (anon_sym_nonlocal, ACTIONS 65), (anon_sym_exec, ACTIONS 347),
    (anon_sym_type, ACTIONS 349), (anon_sym_mut, ACTIONS 339), (anon_sym_out, ACTIONS 339),
    (anon_sym_DASH, ACTIONS 79), (anon_sym_PLUS, ACTIONS 79), (anon_sym_ref, ACTIONS 81),
    (anon_sym_var, ACTIONS 81), (anon_sym_not, ACTIONS 83), (anon_sym_TILDE, ACTIONS 79),
    (anon_sym_lambda, ACTIONS 85), (anon_sym_yield, ACTIONS 87), (sym_ellipsis, ACTIONS 89),
    (anon_sym___mlir_type, ACTIONS 91), (sym_integer, ACTIONS 93), (sym_float, ACTIONS 89),
    (anon_sym_await, ACTIONS 351), (sym_true, ACTIONS 93), (sym_false, ACTIONS 93),
    (sym_none, ACTIONS 93), (sym_comment, ACTIONS 3), (sym_line_continuation, ACTIONS 3),
    (sym__newline, ACTIONS 1117), (sym__indent, ACTIONS 1119), (sym_string_start, ACTIONS 97)]"

definition parse_table_1121 :: "(nat \<times> nat) list" where "parse_table_1121 = [
    (sym__simple_statements, STATE 6674), (sym_import_statement, STATE 11814),
    (sym_future_import_statement, STATE 11814), (sym_import_from_statement, STATE 11814),
    (sym_print_statement, STATE 11814), (sym_assert_statement, STATE 11814),
    (sym_comptime_assert_statement, STATE 11814), (sym_expression_statement, STATE 11814),
    (sym_tuple_expression, STATE 12425), (sym_named_expression, STATE 7969),
    (sym__named_expression_lhs, STATE 12752), (sym_return_statement, STATE 11814),
    (sym_delete_statement, STATE 11814), (sym_raise_statement, STATE 11814),
    (sym_pass_statement, STATE 11814), (sym_break_statement, STATE 11814),
    (sym_continue_statement, STATE 11814), (sym_global_statement, STATE 11814),
    (sym_nonlocal_statement, STATE 11814), (sym_exec_statement, STATE 11814),
    (sym_type_alias_statement, STATE 11814), (sym_parameterized_alias_statement, STATE 11814),
    (sym_pattern, STATE 8086), (sym_tuple_pattern, STATE 8101), (sym_list_pattern, STATE 8101),
    (sym_list_splat_pattern, STATE 6795), (sym_as_pattern, STATE 7969),
    (sym_expression, STATE 9623), (sym_primary_expression, STATE 7326),
    (sym_comptime_expression, STATE 7017), (sym_transfer_expression, STATE 7017),
    (sym_not_operator, STATE 7969), (sym_boolean_operator, STATE 7969),
    (sym_binary_operator, STATE 7017), (sym_unary_operator, STATE 7017),
    (sym_comparison_operator, STATE 7969), (sym_lambda, STATE 7969),
    (sym_assignment, STATE 12425), (sym_augmented_assignment, STATE 12425),
    (sym_pattern_list, STATE 8578), (sym_yield, STATE 12425), (sym_attribute, STATE 6796),
    (sym_subscript, STATE 6797), (sym_call, STATE 6768), (sym_type, STATE 10130),
    (sym_called_type, STATE 9093), (sym_function_type, STATE 9093), (sym_splat_type, STATE 9093),
    (sym_generic_type, STATE 8287), (sym_union_type, STATE 9093),
    (sym_intersection_type, STATE 9093), (sym__intersection_operand, STATE 12294),
    (sym_constrained_type, STATE 9093), (sym_member_type, STATE 8165),
    (sym_mlir_type, STATE 7017), (sym_list, STATE 7017), (sym_set, STATE 7017),
    (sym_tuple, STATE 7017), (sym_dictionary, STATE 7017), (sym_struct_literal, STATE 7017),
    (sym_list_comprehension, STATE 7017), (sym_dictionary_comprehension, STATE 7017),
    (sym_set_comprehension, STATE 7017), (sym_generator_expression, STATE 7017),
    (sym_parenthesized_expression, STATE 7017), (sym_conditional_expression, STATE 7969),
    (sym_concatenated_string, STATE 7017), (sym_string, STATE 6729), (sym_await, STATE 7017),
    (sym_identifier, ACTIONS 327), (anon_sym_import, ACTIONS 11), (anon_sym_from, ACTIONS 13),
    (anon_sym_LPAREN, ACTIONS 329), (anon_sym_STAR, ACTIONS 331), (anon_sym_print, ACTIONS 333),
    (anon_sym_comptime, ACTIONS 335), (anon_sym_assert, ACTIONS 23),
    (anon_sym___comptime_assert, ACTIONS 25), (anon_sym_return, ACTIONS 27),
    (anon_sym_del, ACTIONS 29), (anon_sym_raise, ACTIONS 31), (anon_sym_pass, ACTIONS 33),
    (anon_sym_break, ACTIONS 35), (anon_sym_continue, ACTIONS 37), (anon_sym_match, ACTIONS 337),
    (anon_sym_async, ACTIONS 339), (anon_sym_def, ACTIONS 341), (anon_sym_LBRACK, ACTIONS 343),
    (anon_sym_LBRACE, ACTIONS 61), (anon_sym_STAR_STAR, ACTIONS 345),
    (anon_sym_global, ACTIONS 63), (anon_sym_nonlocal, ACTIONS 65), (anon_sym_exec, ACTIONS 347),
    (anon_sym_type, ACTIONS 349), (anon_sym_mut, ACTIONS 339), (anon_sym_out, ACTIONS 339),
    (anon_sym_DASH, ACTIONS 79), (anon_sym_PLUS, ACTIONS 79), (anon_sym_ref, ACTIONS 81),
    (anon_sym_var, ACTIONS 81), (anon_sym_not, ACTIONS 83), (anon_sym_TILDE, ACTIONS 79),
    (anon_sym_lambda, ACTIONS 85), (anon_sym_yield, ACTIONS 87), (sym_ellipsis, ACTIONS 89),
    (anon_sym___mlir_type, ACTIONS 91), (sym_integer, ACTIONS 93), (sym_float, ACTIONS 89),
    (anon_sym_await, ACTIONS 351), (sym_true, ACTIONS 93), (sym_false, ACTIONS 93),
    (sym_none, ACTIONS 93), (sym_comment, ACTIONS 3), (sym_line_continuation, ACTIONS 3),
    (sym__newline, ACTIONS 1121), (sym__indent, ACTIONS 1123), (sym_string_start, ACTIONS 97)]"

definition parse_table_1122 :: "(nat \<times> nat) list" where "parse_table_1122 = [
    (sym__simple_statements, STATE 5432), (sym_import_statement, STATE 12239),
    (sym_future_import_statement, STATE 12239), (sym_import_from_statement, STATE 12239),
    (sym_print_statement, STATE 12239), (sym_assert_statement, STATE 12239),
    (sym_comptime_assert_statement, STATE 12239), (sym_expression_statement, STATE 12239),
    (sym_tuple_expression, STATE 12425), (sym_named_expression, STATE 7969),
    (sym__named_expression_lhs, STATE 12752), (sym_return_statement, STATE 12239),
    (sym_delete_statement, STATE 12239), (sym_raise_statement, STATE 12239),
    (sym_pass_statement, STATE 12239), (sym_break_statement, STATE 12239),
    (sym_continue_statement, STATE 12239), (sym_global_statement, STATE 12239),
    (sym_nonlocal_statement, STATE 12239), (sym_exec_statement, STATE 12239),
    (sym_type_alias_statement, STATE 12239), (sym_parameterized_alias_statement, STATE 12239),
    (sym_pattern, STATE 8086), (sym_tuple_pattern, STATE 8101), (sym_list_pattern, STATE 8101),
    (sym_list_splat_pattern, STATE 6795), (sym_as_pattern, STATE 7969),
    (sym_expression, STATE 9623), (sym_primary_expression, STATE 7326),
    (sym_comptime_expression, STATE 7017), (sym_transfer_expression, STATE 7017),
    (sym_not_operator, STATE 7969), (sym_boolean_operator, STATE 7969),
    (sym_binary_operator, STATE 7017), (sym_unary_operator, STATE 7017),
    (sym_comparison_operator, STATE 7969), (sym_lambda, STATE 7969),
    (sym_assignment, STATE 12425), (sym_augmented_assignment, STATE 12425),
    (sym_pattern_list, STATE 8578), (sym_yield, STATE 12425), (sym_attribute, STATE 6796),
    (sym_subscript, STATE 6797), (sym_call, STATE 6768), (sym_type, STATE 10130),
    (sym_called_type, STATE 9093), (sym_function_type, STATE 9093), (sym_splat_type, STATE 9093),
    (sym_generic_type, STATE 8287), (sym_union_type, STATE 9093),
    (sym_intersection_type, STATE 9093), (sym__intersection_operand, STATE 12294),
    (sym_constrained_type, STATE 9093), (sym_member_type, STATE 8165),
    (sym_mlir_type, STATE 7017), (sym_list, STATE 7017), (sym_set, STATE 7017),
    (sym_tuple, STATE 7017), (sym_dictionary, STATE 7017), (sym_struct_literal, STATE 7017),
    (sym_list_comprehension, STATE 7017), (sym_dictionary_comprehension, STATE 7017),
    (sym_set_comprehension, STATE 7017), (sym_generator_expression, STATE 7017),
    (sym_parenthesized_expression, STATE 7017), (sym_conditional_expression, STATE 7969),
    (sym_concatenated_string, STATE 7017), (sym_string, STATE 6729), (sym_await, STATE 7017),
    (sym_identifier, ACTIONS 327), (anon_sym_import, ACTIONS 11), (anon_sym_from, ACTIONS 13),
    (anon_sym_LPAREN, ACTIONS 329), (anon_sym_STAR, ACTIONS 331), (anon_sym_print, ACTIONS 333),
    (anon_sym_comptime, ACTIONS 335), (anon_sym_assert, ACTIONS 23),
    (anon_sym___comptime_assert, ACTIONS 25), (anon_sym_return, ACTIONS 27),
    (anon_sym_del, ACTIONS 29), (anon_sym_raise, ACTIONS 31), (anon_sym_pass, ACTIONS 33),
    (anon_sym_break, ACTIONS 35), (anon_sym_continue, ACTIONS 37), (anon_sym_match, ACTIONS 337),
    (anon_sym_async, ACTIONS 339), (anon_sym_def, ACTIONS 341), (anon_sym_LBRACK, ACTIONS 343),
    (anon_sym_LBRACE, ACTIONS 61), (anon_sym_STAR_STAR, ACTIONS 345),
    (anon_sym_global, ACTIONS 63), (anon_sym_nonlocal, ACTIONS 65), (anon_sym_exec, ACTIONS 347),
    (anon_sym_type, ACTIONS 349), (anon_sym_mut, ACTIONS 339), (anon_sym_out, ACTIONS 339),
    (anon_sym_DASH, ACTIONS 79), (anon_sym_PLUS, ACTIONS 79), (anon_sym_ref, ACTIONS 81),
    (anon_sym_var, ACTIONS 81), (anon_sym_not, ACTIONS 83), (anon_sym_TILDE, ACTIONS 79),
    (anon_sym_lambda, ACTIONS 85), (anon_sym_yield, ACTIONS 87), (sym_ellipsis, ACTIONS 89),
    (anon_sym___mlir_type, ACTIONS 91), (sym_integer, ACTIONS 93), (sym_float, ACTIONS 89),
    (anon_sym_await, ACTIONS 351), (sym_true, ACTIONS 93), (sym_false, ACTIONS 93),
    (sym_none, ACTIONS 93), (sym_comment, ACTIONS 3), (sym_line_continuation, ACTIONS 3),
    (sym__newline, ACTIONS 1125), (sym__indent, ACTIONS 1127), (sym_string_start, ACTIONS 97)]"

definition parse_table_1123 :: "(nat \<times> nat) list" where "parse_table_1123 = [
    (sym__simple_statements, STATE 6206), (sym_import_statement, STATE 12239),
    (sym_future_import_statement, STATE 12239), (sym_import_from_statement, STATE 12239),
    (sym_print_statement, STATE 12239), (sym_assert_statement, STATE 12239),
    (sym_comptime_assert_statement, STATE 12239), (sym_expression_statement, STATE 12239),
    (sym_tuple_expression, STATE 12425), (sym_named_expression, STATE 7969),
    (sym__named_expression_lhs, STATE 12752), (sym_return_statement, STATE 12239),
    (sym_delete_statement, STATE 12239), (sym_raise_statement, STATE 12239),
    (sym_pass_statement, STATE 12239), (sym_break_statement, STATE 12239),
    (sym_continue_statement, STATE 12239), (sym_global_statement, STATE 12239),
    (sym_nonlocal_statement, STATE 12239), (sym_exec_statement, STATE 12239),
    (sym_type_alias_statement, STATE 12239), (sym_parameterized_alias_statement, STATE 12239),
    (sym_pattern, STATE 8086), (sym_tuple_pattern, STATE 8101), (sym_list_pattern, STATE 8101),
    (sym_list_splat_pattern, STATE 6795), (sym_as_pattern, STATE 7969),
    (sym_expression, STATE 9623), (sym_primary_expression, STATE 7326),
    (sym_comptime_expression, STATE 7017), (sym_transfer_expression, STATE 7017),
    (sym_not_operator, STATE 7969), (sym_boolean_operator, STATE 7969),
    (sym_binary_operator, STATE 7017), (sym_unary_operator, STATE 7017),
    (sym_comparison_operator, STATE 7969), (sym_lambda, STATE 7969),
    (sym_assignment, STATE 12425), (sym_augmented_assignment, STATE 12425),
    (sym_pattern_list, STATE 8578), (sym_yield, STATE 12425), (sym_attribute, STATE 6796),
    (sym_subscript, STATE 6797), (sym_call, STATE 6768), (sym_type, STATE 10130),
    (sym_called_type, STATE 9093), (sym_function_type, STATE 9093), (sym_splat_type, STATE 9093),
    (sym_generic_type, STATE 8287), (sym_union_type, STATE 9093),
    (sym_intersection_type, STATE 9093), (sym__intersection_operand, STATE 12294),
    (sym_constrained_type, STATE 9093), (sym_member_type, STATE 8165),
    (sym_mlir_type, STATE 7017), (sym_list, STATE 7017), (sym_set, STATE 7017),
    (sym_tuple, STATE 7017), (sym_dictionary, STATE 7017), (sym_struct_literal, STATE 7017),
    (sym_list_comprehension, STATE 7017), (sym_dictionary_comprehension, STATE 7017),
    (sym_set_comprehension, STATE 7017), (sym_generator_expression, STATE 7017),
    (sym_parenthesized_expression, STATE 7017), (sym_conditional_expression, STATE 7969),
    (sym_concatenated_string, STATE 7017), (sym_string, STATE 6729), (sym_await, STATE 7017),
    (sym_identifier, ACTIONS 327), (anon_sym_import, ACTIONS 11), (anon_sym_from, ACTIONS 13),
    (anon_sym_LPAREN, ACTIONS 329), (anon_sym_STAR, ACTIONS 331), (anon_sym_print, ACTIONS 333),
    (anon_sym_comptime, ACTIONS 335), (anon_sym_assert, ACTIONS 23),
    (anon_sym___comptime_assert, ACTIONS 25), (anon_sym_return, ACTIONS 27),
    (anon_sym_del, ACTIONS 29), (anon_sym_raise, ACTIONS 31), (anon_sym_pass, ACTIONS 33),
    (anon_sym_break, ACTIONS 35), (anon_sym_continue, ACTIONS 37), (anon_sym_match, ACTIONS 337),
    (anon_sym_async, ACTIONS 339), (anon_sym_def, ACTIONS 341), (anon_sym_LBRACK, ACTIONS 343),
    (anon_sym_LBRACE, ACTIONS 61), (anon_sym_STAR_STAR, ACTIONS 345),
    (anon_sym_global, ACTIONS 63), (anon_sym_nonlocal, ACTIONS 65), (anon_sym_exec, ACTIONS 347),
    (anon_sym_type, ACTIONS 349), (anon_sym_mut, ACTIONS 339), (anon_sym_out, ACTIONS 339),
    (anon_sym_DASH, ACTIONS 79), (anon_sym_PLUS, ACTIONS 79), (anon_sym_ref, ACTIONS 81),
    (anon_sym_var, ACTIONS 81), (anon_sym_not, ACTIONS 83), (anon_sym_TILDE, ACTIONS 79),
    (anon_sym_lambda, ACTIONS 85), (anon_sym_yield, ACTIONS 87), (sym_ellipsis, ACTIONS 89),
    (anon_sym___mlir_type, ACTIONS 91), (sym_integer, ACTIONS 93), (sym_float, ACTIONS 89),
    (anon_sym_await, ACTIONS 351), (sym_true, ACTIONS 93), (sym_false, ACTIONS 93),
    (sym_none, ACTIONS 93), (sym_comment, ACTIONS 3), (sym_line_continuation, ACTIONS 3),
    (sym__newline, ACTIONS 1129), (sym__indent, ACTIONS 1131), (sym_string_start, ACTIONS 97)]"

definition parse_table_1124 :: "(nat \<times> nat) list" where "parse_table_1124 = [
    (sym__simple_statements, STATE 5815), (sym_import_statement, STATE 11814),
    (sym_future_import_statement, STATE 11814), (sym_import_from_statement, STATE 11814),
    (sym_print_statement, STATE 11814), (sym_assert_statement, STATE 11814),
    (sym_comptime_assert_statement, STATE 11814), (sym_expression_statement, STATE 11814),
    (sym_tuple_expression, STATE 12425), (sym_named_expression, STATE 7969),
    (sym__named_expression_lhs, STATE 12752), (sym_return_statement, STATE 11814),
    (sym_delete_statement, STATE 11814), (sym_raise_statement, STATE 11814),
    (sym_pass_statement, STATE 11814), (sym_break_statement, STATE 11814),
    (sym_continue_statement, STATE 11814), (sym_global_statement, STATE 11814),
    (sym_nonlocal_statement, STATE 11814), (sym_exec_statement, STATE 11814),
    (sym_type_alias_statement, STATE 11814), (sym_parameterized_alias_statement, STATE 11814),
    (sym_pattern, STATE 8086), (sym_tuple_pattern, STATE 8101), (sym_list_pattern, STATE 8101),
    (sym_list_splat_pattern, STATE 6795), (sym_as_pattern, STATE 7969),
    (sym_expression, STATE 9623), (sym_primary_expression, STATE 7326),
    (sym_comptime_expression, STATE 7017), (sym_transfer_expression, STATE 7017),
    (sym_not_operator, STATE 7969), (sym_boolean_operator, STATE 7969),
    (sym_binary_operator, STATE 7017), (sym_unary_operator, STATE 7017),
    (sym_comparison_operator, STATE 7969), (sym_lambda, STATE 7969),
    (sym_assignment, STATE 12425), (sym_augmented_assignment, STATE 12425),
    (sym_pattern_list, STATE 8578), (sym_yield, STATE 12425), (sym_attribute, STATE 6796),
    (sym_subscript, STATE 6797), (sym_call, STATE 6768), (sym_type, STATE 10130),
    (sym_called_type, STATE 9093), (sym_function_type, STATE 9093), (sym_splat_type, STATE 9093),
    (sym_generic_type, STATE 8287), (sym_union_type, STATE 9093),
    (sym_intersection_type, STATE 9093), (sym__intersection_operand, STATE 12294),
    (sym_constrained_type, STATE 9093), (sym_member_type, STATE 8165),
    (sym_mlir_type, STATE 7017), (sym_list, STATE 7017), (sym_set, STATE 7017),
    (sym_tuple, STATE 7017), (sym_dictionary, STATE 7017), (sym_struct_literal, STATE 7017),
    (sym_list_comprehension, STATE 7017), (sym_dictionary_comprehension, STATE 7017),
    (sym_set_comprehension, STATE 7017), (sym_generator_expression, STATE 7017),
    (sym_parenthesized_expression, STATE 7017), (sym_conditional_expression, STATE 7969),
    (sym_concatenated_string, STATE 7017), (sym_string, STATE 6729), (sym_await, STATE 7017),
    (sym_identifier, ACTIONS 327), (anon_sym_import, ACTIONS 11), (anon_sym_from, ACTIONS 13),
    (anon_sym_LPAREN, ACTIONS 329), (anon_sym_STAR, ACTIONS 331), (anon_sym_print, ACTIONS 333),
    (anon_sym_comptime, ACTIONS 335), (anon_sym_assert, ACTIONS 23),
    (anon_sym___comptime_assert, ACTIONS 25), (anon_sym_return, ACTIONS 27),
    (anon_sym_del, ACTIONS 29), (anon_sym_raise, ACTIONS 31), (anon_sym_pass, ACTIONS 33),
    (anon_sym_break, ACTIONS 35), (anon_sym_continue, ACTIONS 37), (anon_sym_match, ACTIONS 337),
    (anon_sym_async, ACTIONS 339), (anon_sym_def, ACTIONS 341), (anon_sym_LBRACK, ACTIONS 343),
    (anon_sym_LBRACE, ACTIONS 61), (anon_sym_STAR_STAR, ACTIONS 345),
    (anon_sym_global, ACTIONS 63), (anon_sym_nonlocal, ACTIONS 65), (anon_sym_exec, ACTIONS 347),
    (anon_sym_type, ACTIONS 349), (anon_sym_mut, ACTIONS 339), (anon_sym_out, ACTIONS 339),
    (anon_sym_DASH, ACTIONS 79), (anon_sym_PLUS, ACTIONS 79), (anon_sym_ref, ACTIONS 81),
    (anon_sym_var, ACTIONS 81), (anon_sym_not, ACTIONS 83), (anon_sym_TILDE, ACTIONS 79),
    (anon_sym_lambda, ACTIONS 85), (anon_sym_yield, ACTIONS 87), (sym_ellipsis, ACTIONS 89),
    (anon_sym___mlir_type, ACTIONS 91), (sym_integer, ACTIONS 93), (sym_float, ACTIONS 89),
    (anon_sym_await, ACTIONS 351), (sym_true, ACTIONS 93), (sym_false, ACTIONS 93),
    (sym_none, ACTIONS 93), (sym_comment, ACTIONS 3), (sym_line_continuation, ACTIONS 3),
    (sym__newline, ACTIONS 1133), (sym__indent, ACTIONS 1135), (sym_string_start, ACTIONS 97)]"

definition parse_table_1125 :: "(nat \<times> nat) list" where "parse_table_1125 = [
    (sym__simple_statements, STATE 4583), (sym_import_statement, STATE 11814),
    (sym_future_import_statement, STATE 11814), (sym_import_from_statement, STATE 11814),
    (sym_print_statement, STATE 11814), (sym_assert_statement, STATE 11814),
    (sym_comptime_assert_statement, STATE 11814), (sym_expression_statement, STATE 11814),
    (sym_tuple_expression, STATE 12425), (sym_named_expression, STATE 7969),
    (sym__named_expression_lhs, STATE 12752), (sym_return_statement, STATE 11814),
    (sym_delete_statement, STATE 11814), (sym_raise_statement, STATE 11814),
    (sym_pass_statement, STATE 11814), (sym_break_statement, STATE 11814),
    (sym_continue_statement, STATE 11814), (sym_global_statement, STATE 11814),
    (sym_nonlocal_statement, STATE 11814), (sym_exec_statement, STATE 11814),
    (sym_type_alias_statement, STATE 11814), (sym_parameterized_alias_statement, STATE 11814),
    (sym_pattern, STATE 8086), (sym_tuple_pattern, STATE 8101), (sym_list_pattern, STATE 8101),
    (sym_list_splat_pattern, STATE 6795), (sym_as_pattern, STATE 7969),
    (sym_expression, STATE 9623), (sym_primary_expression, STATE 7326),
    (sym_comptime_expression, STATE 7017), (sym_transfer_expression, STATE 7017),
    (sym_not_operator, STATE 7969), (sym_boolean_operator, STATE 7969),
    (sym_binary_operator, STATE 7017), (sym_unary_operator, STATE 7017),
    (sym_comparison_operator, STATE 7969), (sym_lambda, STATE 7969),
    (sym_assignment, STATE 12425), (sym_augmented_assignment, STATE 12425),
    (sym_pattern_list, STATE 8578), (sym_yield, STATE 12425), (sym_attribute, STATE 6796),
    (sym_subscript, STATE 6797), (sym_call, STATE 6768), (sym_type, STATE 10130),
    (sym_called_type, STATE 9093), (sym_function_type, STATE 9093), (sym_splat_type, STATE 9093),
    (sym_generic_type, STATE 8287), (sym_union_type, STATE 9093),
    (sym_intersection_type, STATE 9093), (sym__intersection_operand, STATE 12294),
    (sym_constrained_type, STATE 9093), (sym_member_type, STATE 8165),
    (sym_mlir_type, STATE 7017), (sym_list, STATE 7017), (sym_set, STATE 7017),
    (sym_tuple, STATE 7017), (sym_dictionary, STATE 7017), (sym_struct_literal, STATE 7017),
    (sym_list_comprehension, STATE 7017), (sym_dictionary_comprehension, STATE 7017),
    (sym_set_comprehension, STATE 7017), (sym_generator_expression, STATE 7017),
    (sym_parenthesized_expression, STATE 7017), (sym_conditional_expression, STATE 7969),
    (sym_concatenated_string, STATE 7017), (sym_string, STATE 6729), (sym_await, STATE 7017),
    (sym_identifier, ACTIONS 327), (anon_sym_import, ACTIONS 11), (anon_sym_from, ACTIONS 13),
    (anon_sym_LPAREN, ACTIONS 329), (anon_sym_STAR, ACTIONS 331), (anon_sym_print, ACTIONS 333),
    (anon_sym_comptime, ACTIONS 335), (anon_sym_assert, ACTIONS 23),
    (anon_sym___comptime_assert, ACTIONS 25), (anon_sym_return, ACTIONS 27),
    (anon_sym_del, ACTIONS 29), (anon_sym_raise, ACTIONS 31), (anon_sym_pass, ACTIONS 33),
    (anon_sym_break, ACTIONS 35), (anon_sym_continue, ACTIONS 37), (anon_sym_match, ACTIONS 337),
    (anon_sym_async, ACTIONS 339), (anon_sym_def, ACTIONS 341), (anon_sym_LBRACK, ACTIONS 343),
    (anon_sym_LBRACE, ACTIONS 61), (anon_sym_STAR_STAR, ACTIONS 345),
    (anon_sym_global, ACTIONS 63), (anon_sym_nonlocal, ACTIONS 65), (anon_sym_exec, ACTIONS 347),
    (anon_sym_type, ACTIONS 349), (anon_sym_mut, ACTIONS 339), (anon_sym_out, ACTIONS 339),
    (anon_sym_DASH, ACTIONS 79), (anon_sym_PLUS, ACTIONS 79), (anon_sym_ref, ACTIONS 81),
    (anon_sym_var, ACTIONS 81), (anon_sym_not, ACTIONS 83), (anon_sym_TILDE, ACTIONS 79),
    (anon_sym_lambda, ACTIONS 85), (anon_sym_yield, ACTIONS 87), (sym_ellipsis, ACTIONS 89),
    (anon_sym___mlir_type, ACTIONS 91), (sym_integer, ACTIONS 93), (sym_float, ACTIONS 89),
    (anon_sym_await, ACTIONS 351), (sym_true, ACTIONS 93), (sym_false, ACTIONS 93),
    (sym_none, ACTIONS 93), (sym_comment, ACTIONS 3), (sym_line_continuation, ACTIONS 3),
    (sym__newline, ACTIONS 1137), (sym__indent, ACTIONS 1139), (sym_string_start, ACTIONS 97)]"

definition parse_table_1126 :: "(nat \<times> nat) list" where "parse_table_1126 = [
    (sym__simple_statements, STATE 6213), (sym_import_statement, STATE 12239),
    (sym_future_import_statement, STATE 12239), (sym_import_from_statement, STATE 12239),
    (sym_print_statement, STATE 12239), (sym_assert_statement, STATE 12239),
    (sym_comptime_assert_statement, STATE 12239), (sym_expression_statement, STATE 12239),
    (sym_tuple_expression, STATE 12425), (sym_named_expression, STATE 7969),
    (sym__named_expression_lhs, STATE 12752), (sym_return_statement, STATE 12239),
    (sym_delete_statement, STATE 12239), (sym_raise_statement, STATE 12239),
    (sym_pass_statement, STATE 12239), (sym_break_statement, STATE 12239),
    (sym_continue_statement, STATE 12239), (sym_global_statement, STATE 12239),
    (sym_nonlocal_statement, STATE 12239), (sym_exec_statement, STATE 12239),
    (sym_type_alias_statement, STATE 12239), (sym_parameterized_alias_statement, STATE 12239),
    (sym_pattern, STATE 8086), (sym_tuple_pattern, STATE 8101), (sym_list_pattern, STATE 8101),
    (sym_list_splat_pattern, STATE 6795), (sym_as_pattern, STATE 7969),
    (sym_expression, STATE 9623), (sym_primary_expression, STATE 7326),
    (sym_comptime_expression, STATE 7017), (sym_transfer_expression, STATE 7017),
    (sym_not_operator, STATE 7969), (sym_boolean_operator, STATE 7969),
    (sym_binary_operator, STATE 7017), (sym_unary_operator, STATE 7017),
    (sym_comparison_operator, STATE 7969), (sym_lambda, STATE 7969),
    (sym_assignment, STATE 12425), (sym_augmented_assignment, STATE 12425),
    (sym_pattern_list, STATE 8578), (sym_yield, STATE 12425), (sym_attribute, STATE 6796),
    (sym_subscript, STATE 6797), (sym_call, STATE 6768), (sym_type, STATE 10130),
    (sym_called_type, STATE 9093), (sym_function_type, STATE 9093), (sym_splat_type, STATE 9093),
    (sym_generic_type, STATE 8287), (sym_union_type, STATE 9093),
    (sym_intersection_type, STATE 9093), (sym__intersection_operand, STATE 12294),
    (sym_constrained_type, STATE 9093), (sym_member_type, STATE 8165),
    (sym_mlir_type, STATE 7017), (sym_list, STATE 7017), (sym_set, STATE 7017),
    (sym_tuple, STATE 7017), (sym_dictionary, STATE 7017), (sym_struct_literal, STATE 7017),
    (sym_list_comprehension, STATE 7017), (sym_dictionary_comprehension, STATE 7017),
    (sym_set_comprehension, STATE 7017), (sym_generator_expression, STATE 7017),
    (sym_parenthesized_expression, STATE 7017), (sym_conditional_expression, STATE 7969),
    (sym_concatenated_string, STATE 7017), (sym_string, STATE 6729), (sym_await, STATE 7017),
    (sym_identifier, ACTIONS 327), (anon_sym_import, ACTIONS 11), (anon_sym_from, ACTIONS 13),
    (anon_sym_LPAREN, ACTIONS 329), (anon_sym_STAR, ACTIONS 331), (anon_sym_print, ACTIONS 333),
    (anon_sym_comptime, ACTIONS 335), (anon_sym_assert, ACTIONS 23),
    (anon_sym___comptime_assert, ACTIONS 25), (anon_sym_return, ACTIONS 27),
    (anon_sym_del, ACTIONS 29), (anon_sym_raise, ACTIONS 31), (anon_sym_pass, ACTIONS 33),
    (anon_sym_break, ACTIONS 35), (anon_sym_continue, ACTIONS 37), (anon_sym_match, ACTIONS 337),
    (anon_sym_async, ACTIONS 339), (anon_sym_def, ACTIONS 341), (anon_sym_LBRACK, ACTIONS 343),
    (anon_sym_LBRACE, ACTIONS 61), (anon_sym_STAR_STAR, ACTIONS 345),
    (anon_sym_global, ACTIONS 63), (anon_sym_nonlocal, ACTIONS 65), (anon_sym_exec, ACTIONS 347),
    (anon_sym_type, ACTIONS 349), (anon_sym_mut, ACTIONS 339), (anon_sym_out, ACTIONS 339),
    (anon_sym_DASH, ACTIONS 79), (anon_sym_PLUS, ACTIONS 79), (anon_sym_ref, ACTIONS 81),
    (anon_sym_var, ACTIONS 81), (anon_sym_not, ACTIONS 83), (anon_sym_TILDE, ACTIONS 79),
    (anon_sym_lambda, ACTIONS 85), (anon_sym_yield, ACTIONS 87), (sym_ellipsis, ACTIONS 89),
    (anon_sym___mlir_type, ACTIONS 91), (sym_integer, ACTIONS 93), (sym_float, ACTIONS 89),
    (anon_sym_await, ACTIONS 351), (sym_true, ACTIONS 93), (sym_false, ACTIONS 93),
    (sym_none, ACTIONS 93), (sym_comment, ACTIONS 3), (sym_line_continuation, ACTIONS 3),
    (sym__newline, ACTIONS 1141), (sym__indent, ACTIONS 1143), (sym_string_start, ACTIONS 97)]"

definition parse_table_1127 :: "(nat \<times> nat) list" where "parse_table_1127 = [
    (sym__simple_statements, STATE 4913), (sym_import_statement, STATE 12239),
    (sym_future_import_statement, STATE 12239), (sym_import_from_statement, STATE 12239),
    (sym_print_statement, STATE 12239), (sym_assert_statement, STATE 12239),
    (sym_comptime_assert_statement, STATE 12239), (sym_expression_statement, STATE 12239),
    (sym_tuple_expression, STATE 12425), (sym_named_expression, STATE 7969),
    (sym__named_expression_lhs, STATE 12752), (sym_return_statement, STATE 12239),
    (sym_delete_statement, STATE 12239), (sym_raise_statement, STATE 12239),
    (sym_pass_statement, STATE 12239), (sym_break_statement, STATE 12239),
    (sym_continue_statement, STATE 12239), (sym_global_statement, STATE 12239),
    (sym_nonlocal_statement, STATE 12239), (sym_exec_statement, STATE 12239),
    (sym_type_alias_statement, STATE 12239), (sym_parameterized_alias_statement, STATE 12239),
    (sym_pattern, STATE 8086), (sym_tuple_pattern, STATE 8101), (sym_list_pattern, STATE 8101),
    (sym_list_splat_pattern, STATE 6795), (sym_as_pattern, STATE 7969),
    (sym_expression, STATE 9623), (sym_primary_expression, STATE 7326),
    (sym_comptime_expression, STATE 7017), (sym_transfer_expression, STATE 7017),
    (sym_not_operator, STATE 7969), (sym_boolean_operator, STATE 7969),
    (sym_binary_operator, STATE 7017), (sym_unary_operator, STATE 7017),
    (sym_comparison_operator, STATE 7969), (sym_lambda, STATE 7969),
    (sym_assignment, STATE 12425), (sym_augmented_assignment, STATE 12425),
    (sym_pattern_list, STATE 8578), (sym_yield, STATE 12425), (sym_attribute, STATE 6796),
    (sym_subscript, STATE 6797), (sym_call, STATE 6768), (sym_type, STATE 10130),
    (sym_called_type, STATE 9093), (sym_function_type, STATE 9093), (sym_splat_type, STATE 9093),
    (sym_generic_type, STATE 8287), (sym_union_type, STATE 9093),
    (sym_intersection_type, STATE 9093), (sym__intersection_operand, STATE 12294),
    (sym_constrained_type, STATE 9093), (sym_member_type, STATE 8165),
    (sym_mlir_type, STATE 7017), (sym_list, STATE 7017), (sym_set, STATE 7017),
    (sym_tuple, STATE 7017), (sym_dictionary, STATE 7017), (sym_struct_literal, STATE 7017),
    (sym_list_comprehension, STATE 7017), (sym_dictionary_comprehension, STATE 7017),
    (sym_set_comprehension, STATE 7017), (sym_generator_expression, STATE 7017),
    (sym_parenthesized_expression, STATE 7017), (sym_conditional_expression, STATE 7969),
    (sym_concatenated_string, STATE 7017), (sym_string, STATE 6729), (sym_await, STATE 7017),
    (sym_identifier, ACTIONS 327), (anon_sym_import, ACTIONS 11), (anon_sym_from, ACTIONS 13),
    (anon_sym_LPAREN, ACTIONS 329), (anon_sym_STAR, ACTIONS 331), (anon_sym_print, ACTIONS 333),
    (anon_sym_comptime, ACTIONS 335), (anon_sym_assert, ACTIONS 23),
    (anon_sym___comptime_assert, ACTIONS 25), (anon_sym_return, ACTIONS 27),
    (anon_sym_del, ACTIONS 29), (anon_sym_raise, ACTIONS 31), (anon_sym_pass, ACTIONS 33),
    (anon_sym_break, ACTIONS 35), (anon_sym_continue, ACTIONS 37), (anon_sym_match, ACTIONS 337),
    (anon_sym_async, ACTIONS 339), (anon_sym_def, ACTIONS 341), (anon_sym_LBRACK, ACTIONS 343),
    (anon_sym_LBRACE, ACTIONS 61), (anon_sym_STAR_STAR, ACTIONS 345),
    (anon_sym_global, ACTIONS 63), (anon_sym_nonlocal, ACTIONS 65), (anon_sym_exec, ACTIONS 347),
    (anon_sym_type, ACTIONS 349), (anon_sym_mut, ACTIONS 339), (anon_sym_out, ACTIONS 339),
    (anon_sym_DASH, ACTIONS 79), (anon_sym_PLUS, ACTIONS 79), (anon_sym_ref, ACTIONS 81),
    (anon_sym_var, ACTIONS 81), (anon_sym_not, ACTIONS 83), (anon_sym_TILDE, ACTIONS 79),
    (anon_sym_lambda, ACTIONS 85), (anon_sym_yield, ACTIONS 87), (sym_ellipsis, ACTIONS 89),
    (anon_sym___mlir_type, ACTIONS 91), (sym_integer, ACTIONS 93), (sym_float, ACTIONS 89),
    (anon_sym_await, ACTIONS 351), (sym_true, ACTIONS 93), (sym_false, ACTIONS 93),
    (sym_none, ACTIONS 93), (sym_comment, ACTIONS 3), (sym_line_continuation, ACTIONS 3),
    (sym__newline, ACTIONS 1145), (sym__indent, ACTIONS 1147), (sym_string_start, ACTIONS 97)]"

definition parse_table_1128 :: "(nat \<times> nat) list" where "parse_table_1128 = [
    (sym__simple_statements, STATE 6226), (sym_import_statement, STATE 12239),
    (sym_future_import_statement, STATE 12239), (sym_import_from_statement, STATE 12239),
    (sym_print_statement, STATE 12239), (sym_assert_statement, STATE 12239),
    (sym_comptime_assert_statement, STATE 12239), (sym_expression_statement, STATE 12239),
    (sym_tuple_expression, STATE 12425), (sym_named_expression, STATE 7969),
    (sym__named_expression_lhs, STATE 12752), (sym_return_statement, STATE 12239),
    (sym_delete_statement, STATE 12239), (sym_raise_statement, STATE 12239),
    (sym_pass_statement, STATE 12239), (sym_break_statement, STATE 12239),
    (sym_continue_statement, STATE 12239), (sym_global_statement, STATE 12239),
    (sym_nonlocal_statement, STATE 12239), (sym_exec_statement, STATE 12239),
    (sym_type_alias_statement, STATE 12239), (sym_parameterized_alias_statement, STATE 12239),
    (sym_pattern, STATE 8086), (sym_tuple_pattern, STATE 8101), (sym_list_pattern, STATE 8101),
    (sym_list_splat_pattern, STATE 6795), (sym_as_pattern, STATE 7969),
    (sym_expression, STATE 9623), (sym_primary_expression, STATE 7326),
    (sym_comptime_expression, STATE 7017), (sym_transfer_expression, STATE 7017),
    (sym_not_operator, STATE 7969), (sym_boolean_operator, STATE 7969),
    (sym_binary_operator, STATE 7017), (sym_unary_operator, STATE 7017),
    (sym_comparison_operator, STATE 7969), (sym_lambda, STATE 7969),
    (sym_assignment, STATE 12425), (sym_augmented_assignment, STATE 12425),
    (sym_pattern_list, STATE 8578), (sym_yield, STATE 12425), (sym_attribute, STATE 6796),
    (sym_subscript, STATE 6797), (sym_call, STATE 6768), (sym_type, STATE 10130),
    (sym_called_type, STATE 9093), (sym_function_type, STATE 9093), (sym_splat_type, STATE 9093),
    (sym_generic_type, STATE 8287), (sym_union_type, STATE 9093),
    (sym_intersection_type, STATE 9093), (sym__intersection_operand, STATE 12294),
    (sym_constrained_type, STATE 9093), (sym_member_type, STATE 8165),
    (sym_mlir_type, STATE 7017), (sym_list, STATE 7017), (sym_set, STATE 7017),
    (sym_tuple, STATE 7017), (sym_dictionary, STATE 7017), (sym_struct_literal, STATE 7017),
    (sym_list_comprehension, STATE 7017), (sym_dictionary_comprehension, STATE 7017),
    (sym_set_comprehension, STATE 7017), (sym_generator_expression, STATE 7017),
    (sym_parenthesized_expression, STATE 7017), (sym_conditional_expression, STATE 7969),
    (sym_concatenated_string, STATE 7017), (sym_string, STATE 6729), (sym_await, STATE 7017),
    (sym_identifier, ACTIONS 327), (anon_sym_import, ACTIONS 11), (anon_sym_from, ACTIONS 13),
    (anon_sym_LPAREN, ACTIONS 329), (anon_sym_STAR, ACTIONS 331), (anon_sym_print, ACTIONS 333),
    (anon_sym_comptime, ACTIONS 335), (anon_sym_assert, ACTIONS 23),
    (anon_sym___comptime_assert, ACTIONS 25), (anon_sym_return, ACTIONS 27),
    (anon_sym_del, ACTIONS 29), (anon_sym_raise, ACTIONS 31), (anon_sym_pass, ACTIONS 33),
    (anon_sym_break, ACTIONS 35), (anon_sym_continue, ACTIONS 37), (anon_sym_match, ACTIONS 337),
    (anon_sym_async, ACTIONS 339), (anon_sym_def, ACTIONS 341), (anon_sym_LBRACK, ACTIONS 343),
    (anon_sym_LBRACE, ACTIONS 61), (anon_sym_STAR_STAR, ACTIONS 345),
    (anon_sym_global, ACTIONS 63), (anon_sym_nonlocal, ACTIONS 65), (anon_sym_exec, ACTIONS 347),
    (anon_sym_type, ACTIONS 349), (anon_sym_mut, ACTIONS 339), (anon_sym_out, ACTIONS 339),
    (anon_sym_DASH, ACTIONS 79), (anon_sym_PLUS, ACTIONS 79), (anon_sym_ref, ACTIONS 81),
    (anon_sym_var, ACTIONS 81), (anon_sym_not, ACTIONS 83), (anon_sym_TILDE, ACTIONS 79),
    (anon_sym_lambda, ACTIONS 85), (anon_sym_yield, ACTIONS 87), (sym_ellipsis, ACTIONS 89),
    (anon_sym___mlir_type, ACTIONS 91), (sym_integer, ACTIONS 93), (sym_float, ACTIONS 89),
    (anon_sym_await, ACTIONS 351), (sym_true, ACTIONS 93), (sym_false, ACTIONS 93),
    (sym_none, ACTIONS 93), (sym_comment, ACTIONS 3), (sym_line_continuation, ACTIONS 3),
    (sym__newline, ACTIONS 1149), (sym__indent, ACTIONS 1151), (sym_string_start, ACTIONS 97)]"

definition parse_table_1129 :: "(nat \<times> nat) list" where "parse_table_1129 = [
    (sym__simple_statements, STATE 6696), (sym_import_statement, STATE 12239),
    (sym_future_import_statement, STATE 12239), (sym_import_from_statement, STATE 12239),
    (sym_print_statement, STATE 12239), (sym_assert_statement, STATE 12239),
    (sym_comptime_assert_statement, STATE 12239), (sym_expression_statement, STATE 12239),
    (sym_tuple_expression, STATE 12425), (sym_named_expression, STATE 7969),
    (sym__named_expression_lhs, STATE 12752), (sym_return_statement, STATE 12239),
    (sym_delete_statement, STATE 12239), (sym_raise_statement, STATE 12239),
    (sym_pass_statement, STATE 12239), (sym_break_statement, STATE 12239),
    (sym_continue_statement, STATE 12239), (sym_global_statement, STATE 12239),
    (sym_nonlocal_statement, STATE 12239), (sym_exec_statement, STATE 12239),
    (sym_type_alias_statement, STATE 12239), (sym_parameterized_alias_statement, STATE 12239),
    (sym_pattern, STATE 8086), (sym_tuple_pattern, STATE 8101), (sym_list_pattern, STATE 8101),
    (sym_list_splat_pattern, STATE 6795), (sym_as_pattern, STATE 7969),
    (sym_expression, STATE 9623), (sym_primary_expression, STATE 7326),
    (sym_comptime_expression, STATE 7017), (sym_transfer_expression, STATE 7017),
    (sym_not_operator, STATE 7969), (sym_boolean_operator, STATE 7969),
    (sym_binary_operator, STATE 7017), (sym_unary_operator, STATE 7017),
    (sym_comparison_operator, STATE 7969), (sym_lambda, STATE 7969),
    (sym_assignment, STATE 12425), (sym_augmented_assignment, STATE 12425),
    (sym_pattern_list, STATE 8578), (sym_yield, STATE 12425), (sym_attribute, STATE 6796),
    (sym_subscript, STATE 6797), (sym_call, STATE 6768), (sym_type, STATE 10130),
    (sym_called_type, STATE 9093), (sym_function_type, STATE 9093), (sym_splat_type, STATE 9093),
    (sym_generic_type, STATE 8287), (sym_union_type, STATE 9093),
    (sym_intersection_type, STATE 9093), (sym__intersection_operand, STATE 12294),
    (sym_constrained_type, STATE 9093), (sym_member_type, STATE 8165),
    (sym_mlir_type, STATE 7017), (sym_list, STATE 7017), (sym_set, STATE 7017),
    (sym_tuple, STATE 7017), (sym_dictionary, STATE 7017), (sym_struct_literal, STATE 7017),
    (sym_list_comprehension, STATE 7017), (sym_dictionary_comprehension, STATE 7017),
    (sym_set_comprehension, STATE 7017), (sym_generator_expression, STATE 7017),
    (sym_parenthesized_expression, STATE 7017), (sym_conditional_expression, STATE 7969),
    (sym_concatenated_string, STATE 7017), (sym_string, STATE 6729), (sym_await, STATE 7017),
    (sym_identifier, ACTIONS 327), (anon_sym_import, ACTIONS 11), (anon_sym_from, ACTIONS 13),
    (anon_sym_LPAREN, ACTIONS 329), (anon_sym_STAR, ACTIONS 331), (anon_sym_print, ACTIONS 333),
    (anon_sym_comptime, ACTIONS 335), (anon_sym_assert, ACTIONS 23),
    (anon_sym___comptime_assert, ACTIONS 25), (anon_sym_return, ACTIONS 27),
    (anon_sym_del, ACTIONS 29), (anon_sym_raise, ACTIONS 31), (anon_sym_pass, ACTIONS 33),
    (anon_sym_break, ACTIONS 35), (anon_sym_continue, ACTIONS 37), (anon_sym_match, ACTIONS 337),
    (anon_sym_async, ACTIONS 339), (anon_sym_def, ACTIONS 341), (anon_sym_LBRACK, ACTIONS 343),
    (anon_sym_LBRACE, ACTIONS 61), (anon_sym_STAR_STAR, ACTIONS 345),
    (anon_sym_global, ACTIONS 63), (anon_sym_nonlocal, ACTIONS 65), (anon_sym_exec, ACTIONS 347),
    (anon_sym_type, ACTIONS 349), (anon_sym_mut, ACTIONS 339), (anon_sym_out, ACTIONS 339),
    (anon_sym_DASH, ACTIONS 79), (anon_sym_PLUS, ACTIONS 79), (anon_sym_ref, ACTIONS 81),
    (anon_sym_var, ACTIONS 81), (anon_sym_not, ACTIONS 83), (anon_sym_TILDE, ACTIONS 79),
    (anon_sym_lambda, ACTIONS 85), (anon_sym_yield, ACTIONS 87), (sym_ellipsis, ACTIONS 89),
    (anon_sym___mlir_type, ACTIONS 91), (sym_integer, ACTIONS 93), (sym_float, ACTIONS 89),
    (anon_sym_await, ACTIONS 351), (sym_true, ACTIONS 93), (sym_false, ACTIONS 93),
    (sym_none, ACTIONS 93), (sym_comment, ACTIONS 3), (sym_line_continuation, ACTIONS 3),
    (sym__newline, ACTIONS 1153), (sym__indent, ACTIONS 1155), (sym_string_start, ACTIONS 97)]"

definition parse_table_1130 :: "(nat \<times> nat) list" where "parse_table_1130 = [
    (sym__simple_statements, STATE 5440), (sym_import_statement, STATE 12239),
    (sym_future_import_statement, STATE 12239), (sym_import_from_statement, STATE 12239),
    (sym_print_statement, STATE 12239), (sym_assert_statement, STATE 12239),
    (sym_comptime_assert_statement, STATE 12239), (sym_expression_statement, STATE 12239),
    (sym_tuple_expression, STATE 12425), (sym_named_expression, STATE 7969),
    (sym__named_expression_lhs, STATE 12752), (sym_return_statement, STATE 12239),
    (sym_delete_statement, STATE 12239), (sym_raise_statement, STATE 12239),
    (sym_pass_statement, STATE 12239), (sym_break_statement, STATE 12239),
    (sym_continue_statement, STATE 12239), (sym_global_statement, STATE 12239),
    (sym_nonlocal_statement, STATE 12239), (sym_exec_statement, STATE 12239),
    (sym_type_alias_statement, STATE 12239), (sym_parameterized_alias_statement, STATE 12239),
    (sym_pattern, STATE 8086), (sym_tuple_pattern, STATE 8101), (sym_list_pattern, STATE 8101),
    (sym_list_splat_pattern, STATE 6795), (sym_as_pattern, STATE 7969),
    (sym_expression, STATE 9623), (sym_primary_expression, STATE 7326),
    (sym_comptime_expression, STATE 7017), (sym_transfer_expression, STATE 7017),
    (sym_not_operator, STATE 7969), (sym_boolean_operator, STATE 7969),
    (sym_binary_operator, STATE 7017), (sym_unary_operator, STATE 7017),
    (sym_comparison_operator, STATE 7969), (sym_lambda, STATE 7969),
    (sym_assignment, STATE 12425), (sym_augmented_assignment, STATE 12425),
    (sym_pattern_list, STATE 8578), (sym_yield, STATE 12425), (sym_attribute, STATE 6796),
    (sym_subscript, STATE 6797), (sym_call, STATE 6768), (sym_type, STATE 10130),
    (sym_called_type, STATE 9093), (sym_function_type, STATE 9093), (sym_splat_type, STATE 9093),
    (sym_generic_type, STATE 8287), (sym_union_type, STATE 9093),
    (sym_intersection_type, STATE 9093), (sym__intersection_operand, STATE 12294),
    (sym_constrained_type, STATE 9093), (sym_member_type, STATE 8165),
    (sym_mlir_type, STATE 7017), (sym_list, STATE 7017), (sym_set, STATE 7017),
    (sym_tuple, STATE 7017), (sym_dictionary, STATE 7017), (sym_struct_literal, STATE 7017),
    (sym_list_comprehension, STATE 7017), (sym_dictionary_comprehension, STATE 7017),
    (sym_set_comprehension, STATE 7017), (sym_generator_expression, STATE 7017),
    (sym_parenthesized_expression, STATE 7017), (sym_conditional_expression, STATE 7969),
    (sym_concatenated_string, STATE 7017), (sym_string, STATE 6729), (sym_await, STATE 7017),
    (sym_identifier, ACTIONS 327), (anon_sym_import, ACTIONS 11), (anon_sym_from, ACTIONS 13),
    (anon_sym_LPAREN, ACTIONS 329), (anon_sym_STAR, ACTIONS 331), (anon_sym_print, ACTIONS 333),
    (anon_sym_comptime, ACTIONS 335), (anon_sym_assert, ACTIONS 23),
    (anon_sym___comptime_assert, ACTIONS 25), (anon_sym_return, ACTIONS 27),
    (anon_sym_del, ACTIONS 29), (anon_sym_raise, ACTIONS 31), (anon_sym_pass, ACTIONS 33),
    (anon_sym_break, ACTIONS 35), (anon_sym_continue, ACTIONS 37), (anon_sym_match, ACTIONS 337),
    (anon_sym_async, ACTIONS 339), (anon_sym_def, ACTIONS 341), (anon_sym_LBRACK, ACTIONS 343),
    (anon_sym_LBRACE, ACTIONS 61), (anon_sym_STAR_STAR, ACTIONS 345),
    (anon_sym_global, ACTIONS 63), (anon_sym_nonlocal, ACTIONS 65), (anon_sym_exec, ACTIONS 347),
    (anon_sym_type, ACTIONS 349), (anon_sym_mut, ACTIONS 339), (anon_sym_out, ACTIONS 339),
    (anon_sym_DASH, ACTIONS 79), (anon_sym_PLUS, ACTIONS 79), (anon_sym_ref, ACTIONS 81),
    (anon_sym_var, ACTIONS 81), (anon_sym_not, ACTIONS 83), (anon_sym_TILDE, ACTIONS 79),
    (anon_sym_lambda, ACTIONS 85), (anon_sym_yield, ACTIONS 87), (sym_ellipsis, ACTIONS 89),
    (anon_sym___mlir_type, ACTIONS 91), (sym_integer, ACTIONS 93), (sym_float, ACTIONS 89),
    (anon_sym_await, ACTIONS 351), (sym_true, ACTIONS 93), (sym_false, ACTIONS 93),
    (sym_none, ACTIONS 93), (sym_comment, ACTIONS 3), (sym_line_continuation, ACTIONS 3),
    (sym__newline, ACTIONS 1157), (sym__indent, ACTIONS 1159), (sym_string_start, ACTIONS 97)]"

definition parse_table_1131 :: "(nat \<times> nat) list" where "parse_table_1131 = [
    (sym__simple_statements, STATE 6241), (sym_import_statement, STATE 12239),
    (sym_future_import_statement, STATE 12239), (sym_import_from_statement, STATE 12239),
    (sym_print_statement, STATE 12239), (sym_assert_statement, STATE 12239),
    (sym_comptime_assert_statement, STATE 12239), (sym_expression_statement, STATE 12239),
    (sym_tuple_expression, STATE 12425), (sym_named_expression, STATE 7969),
    (sym__named_expression_lhs, STATE 12752), (sym_return_statement, STATE 12239),
    (sym_delete_statement, STATE 12239), (sym_raise_statement, STATE 12239),
    (sym_pass_statement, STATE 12239), (sym_break_statement, STATE 12239),
    (sym_continue_statement, STATE 12239), (sym_global_statement, STATE 12239),
    (sym_nonlocal_statement, STATE 12239), (sym_exec_statement, STATE 12239),
    (sym_type_alias_statement, STATE 12239), (sym_parameterized_alias_statement, STATE 12239),
    (sym_pattern, STATE 8086), (sym_tuple_pattern, STATE 8101), (sym_list_pattern, STATE 8101),
    (sym_list_splat_pattern, STATE 6795), (sym_as_pattern, STATE 7969),
    (sym_expression, STATE 9623), (sym_primary_expression, STATE 7326),
    (sym_comptime_expression, STATE 7017), (sym_transfer_expression, STATE 7017),
    (sym_not_operator, STATE 7969), (sym_boolean_operator, STATE 7969),
    (sym_binary_operator, STATE 7017), (sym_unary_operator, STATE 7017),
    (sym_comparison_operator, STATE 7969), (sym_lambda, STATE 7969),
    (sym_assignment, STATE 12425), (sym_augmented_assignment, STATE 12425),
    (sym_pattern_list, STATE 8578), (sym_yield, STATE 12425), (sym_attribute, STATE 6796),
    (sym_subscript, STATE 6797), (sym_call, STATE 6768), (sym_type, STATE 10130),
    (sym_called_type, STATE 9093), (sym_function_type, STATE 9093), (sym_splat_type, STATE 9093),
    (sym_generic_type, STATE 8287), (sym_union_type, STATE 9093),
    (sym_intersection_type, STATE 9093), (sym__intersection_operand, STATE 12294),
    (sym_constrained_type, STATE 9093), (sym_member_type, STATE 8165),
    (sym_mlir_type, STATE 7017), (sym_list, STATE 7017), (sym_set, STATE 7017),
    (sym_tuple, STATE 7017), (sym_dictionary, STATE 7017), (sym_struct_literal, STATE 7017),
    (sym_list_comprehension, STATE 7017), (sym_dictionary_comprehension, STATE 7017),
    (sym_set_comprehension, STATE 7017), (sym_generator_expression, STATE 7017),
    (sym_parenthesized_expression, STATE 7017), (sym_conditional_expression, STATE 7969),
    (sym_concatenated_string, STATE 7017), (sym_string, STATE 6729), (sym_await, STATE 7017),
    (sym_identifier, ACTIONS 327), (anon_sym_import, ACTIONS 11), (anon_sym_from, ACTIONS 13),
    (anon_sym_LPAREN, ACTIONS 329), (anon_sym_STAR, ACTIONS 331), (anon_sym_print, ACTIONS 333),
    (anon_sym_comptime, ACTIONS 335), (anon_sym_assert, ACTIONS 23),
    (anon_sym___comptime_assert, ACTIONS 25), (anon_sym_return, ACTIONS 27),
    (anon_sym_del, ACTIONS 29), (anon_sym_raise, ACTIONS 31), (anon_sym_pass, ACTIONS 33),
    (anon_sym_break, ACTIONS 35), (anon_sym_continue, ACTIONS 37), (anon_sym_match, ACTIONS 337),
    (anon_sym_async, ACTIONS 339), (anon_sym_def, ACTIONS 341), (anon_sym_LBRACK, ACTIONS 343),
    (anon_sym_LBRACE, ACTIONS 61), (anon_sym_STAR_STAR, ACTIONS 345),
    (anon_sym_global, ACTIONS 63), (anon_sym_nonlocal, ACTIONS 65), (anon_sym_exec, ACTIONS 347),
    (anon_sym_type, ACTIONS 349), (anon_sym_mut, ACTIONS 339), (anon_sym_out, ACTIONS 339),
    (anon_sym_DASH, ACTIONS 79), (anon_sym_PLUS, ACTIONS 79), (anon_sym_ref, ACTIONS 81),
    (anon_sym_var, ACTIONS 81), (anon_sym_not, ACTIONS 83), (anon_sym_TILDE, ACTIONS 79),
    (anon_sym_lambda, ACTIONS 85), (anon_sym_yield, ACTIONS 87), (sym_ellipsis, ACTIONS 89),
    (anon_sym___mlir_type, ACTIONS 91), (sym_integer, ACTIONS 93), (sym_float, ACTIONS 89),
    (anon_sym_await, ACTIONS 351), (sym_true, ACTIONS 93), (sym_false, ACTIONS 93),
    (sym_none, ACTIONS 93), (sym_comment, ACTIONS 3), (sym_line_continuation, ACTIONS 3),
    (sym__newline, ACTIONS 1161), (sym__indent, ACTIONS 1163), (sym_string_start, ACTIONS 97)]"

definition parse_table_1132 :: "(nat \<times> nat) list" where "parse_table_1132 = [
    (sym__simple_statements, STATE 4622), (sym_import_statement, STATE 11814),
    (sym_future_import_statement, STATE 11814), (sym_import_from_statement, STATE 11814),
    (sym_print_statement, STATE 11814), (sym_assert_statement, STATE 11814),
    (sym_comptime_assert_statement, STATE 11814), (sym_expression_statement, STATE 11814),
    (sym_tuple_expression, STATE 12425), (sym_named_expression, STATE 7969),
    (sym__named_expression_lhs, STATE 12752), (sym_return_statement, STATE 11814),
    (sym_delete_statement, STATE 11814), (sym_raise_statement, STATE 11814),
    (sym_pass_statement, STATE 11814), (sym_break_statement, STATE 11814),
    (sym_continue_statement, STATE 11814), (sym_global_statement, STATE 11814),
    (sym_nonlocal_statement, STATE 11814), (sym_exec_statement, STATE 11814),
    (sym_type_alias_statement, STATE 11814), (sym_parameterized_alias_statement, STATE 11814),
    (sym_pattern, STATE 8086), (sym_tuple_pattern, STATE 8101), (sym_list_pattern, STATE 8101),
    (sym_list_splat_pattern, STATE 6795), (sym_as_pattern, STATE 7969),
    (sym_expression, STATE 9623), (sym_primary_expression, STATE 7326),
    (sym_comptime_expression, STATE 7017), (sym_transfer_expression, STATE 7017),
    (sym_not_operator, STATE 7969), (sym_boolean_operator, STATE 7969),
    (sym_binary_operator, STATE 7017), (sym_unary_operator, STATE 7017),
    (sym_comparison_operator, STATE 7969), (sym_lambda, STATE 7969),
    (sym_assignment, STATE 12425), (sym_augmented_assignment, STATE 12425),
    (sym_pattern_list, STATE 8578), (sym_yield, STATE 12425), (sym_attribute, STATE 6796),
    (sym_subscript, STATE 6797), (sym_call, STATE 6768), (sym_type, STATE 10130),
    (sym_called_type, STATE 9093), (sym_function_type, STATE 9093), (sym_splat_type, STATE 9093),
    (sym_generic_type, STATE 8287), (sym_union_type, STATE 9093),
    (sym_intersection_type, STATE 9093), (sym__intersection_operand, STATE 12294),
    (sym_constrained_type, STATE 9093), (sym_member_type, STATE 8165),
    (sym_mlir_type, STATE 7017), (sym_list, STATE 7017), (sym_set, STATE 7017),
    (sym_tuple, STATE 7017), (sym_dictionary, STATE 7017), (sym_struct_literal, STATE 7017),
    (sym_list_comprehension, STATE 7017), (sym_dictionary_comprehension, STATE 7017),
    (sym_set_comprehension, STATE 7017), (sym_generator_expression, STATE 7017),
    (sym_parenthesized_expression, STATE 7017), (sym_conditional_expression, STATE 7969),
    (sym_concatenated_string, STATE 7017), (sym_string, STATE 6729), (sym_await, STATE 7017),
    (sym_identifier, ACTIONS 327), (anon_sym_import, ACTIONS 11), (anon_sym_from, ACTIONS 13),
    (anon_sym_LPAREN, ACTIONS 329), (anon_sym_STAR, ACTIONS 331), (anon_sym_print, ACTIONS 333),
    (anon_sym_comptime, ACTIONS 335), (anon_sym_assert, ACTIONS 23),
    (anon_sym___comptime_assert, ACTIONS 25), (anon_sym_return, ACTIONS 27),
    (anon_sym_del, ACTIONS 29), (anon_sym_raise, ACTIONS 31), (anon_sym_pass, ACTIONS 33),
    (anon_sym_break, ACTIONS 35), (anon_sym_continue, ACTIONS 37), (anon_sym_match, ACTIONS 337),
    (anon_sym_async, ACTIONS 339), (anon_sym_def, ACTIONS 341), (anon_sym_LBRACK, ACTIONS 343),
    (anon_sym_LBRACE, ACTIONS 61), (anon_sym_STAR_STAR, ACTIONS 345),
    (anon_sym_global, ACTIONS 63), (anon_sym_nonlocal, ACTIONS 65), (anon_sym_exec, ACTIONS 347),
    (anon_sym_type, ACTIONS 349), (anon_sym_mut, ACTIONS 339), (anon_sym_out, ACTIONS 339),
    (anon_sym_DASH, ACTIONS 79), (anon_sym_PLUS, ACTIONS 79), (anon_sym_ref, ACTIONS 81),
    (anon_sym_var, ACTIONS 81), (anon_sym_not, ACTIONS 83), (anon_sym_TILDE, ACTIONS 79),
    (anon_sym_lambda, ACTIONS 85), (anon_sym_yield, ACTIONS 87), (sym_ellipsis, ACTIONS 89),
    (anon_sym___mlir_type, ACTIONS 91), (sym_integer, ACTIONS 93), (sym_float, ACTIONS 89),
    (anon_sym_await, ACTIONS 351), (sym_true, ACTIONS 93), (sym_false, ACTIONS 93),
    (sym_none, ACTIONS 93), (sym_comment, ACTIONS 3), (sym_line_continuation, ACTIONS 3),
    (sym__newline, ACTIONS 1165), (sym__indent, ACTIONS 1167), (sym_string_start, ACTIONS 97)]"

definition parse_table_1133 :: "(nat \<times> nat) list" where "parse_table_1133 = [
    (sym__simple_statements, STATE 5146), (sym_import_statement, STATE 12239),
    (sym_future_import_statement, STATE 12239), (sym_import_from_statement, STATE 12239),
    (sym_print_statement, STATE 12239), (sym_assert_statement, STATE 12239),
    (sym_comptime_assert_statement, STATE 12239), (sym_expression_statement, STATE 12239),
    (sym_tuple_expression, STATE 12425), (sym_named_expression, STATE 7969),
    (sym__named_expression_lhs, STATE 12752), (sym_return_statement, STATE 12239),
    (sym_delete_statement, STATE 12239), (sym_raise_statement, STATE 12239),
    (sym_pass_statement, STATE 12239), (sym_break_statement, STATE 12239),
    (sym_continue_statement, STATE 12239), (sym_global_statement, STATE 12239),
    (sym_nonlocal_statement, STATE 12239), (sym_exec_statement, STATE 12239),
    (sym_type_alias_statement, STATE 12239), (sym_parameterized_alias_statement, STATE 12239),
    (sym_pattern, STATE 8086), (sym_tuple_pattern, STATE 8101), (sym_list_pattern, STATE 8101),
    (sym_list_splat_pattern, STATE 6795), (sym_as_pattern, STATE 7969),
    (sym_expression, STATE 9623), (sym_primary_expression, STATE 7326),
    (sym_comptime_expression, STATE 7017), (sym_transfer_expression, STATE 7017),
    (sym_not_operator, STATE 7969), (sym_boolean_operator, STATE 7969),
    (sym_binary_operator, STATE 7017), (sym_unary_operator, STATE 7017),
    (sym_comparison_operator, STATE 7969), (sym_lambda, STATE 7969),
    (sym_assignment, STATE 12425), (sym_augmented_assignment, STATE 12425),
    (sym_pattern_list, STATE 8578), (sym_yield, STATE 12425), (sym_attribute, STATE 6796),
    (sym_subscript, STATE 6797), (sym_call, STATE 6768), (sym_type, STATE 10130),
    (sym_called_type, STATE 9093), (sym_function_type, STATE 9093), (sym_splat_type, STATE 9093),
    (sym_generic_type, STATE 8287), (sym_union_type, STATE 9093),
    (sym_intersection_type, STATE 9093), (sym__intersection_operand, STATE 12294),
    (sym_constrained_type, STATE 9093), (sym_member_type, STATE 8165),
    (sym_mlir_type, STATE 7017), (sym_list, STATE 7017), (sym_set, STATE 7017),
    (sym_tuple, STATE 7017), (sym_dictionary, STATE 7017), (sym_struct_literal, STATE 7017),
    (sym_list_comprehension, STATE 7017), (sym_dictionary_comprehension, STATE 7017),
    (sym_set_comprehension, STATE 7017), (sym_generator_expression, STATE 7017),
    (sym_parenthesized_expression, STATE 7017), (sym_conditional_expression, STATE 7969),
    (sym_concatenated_string, STATE 7017), (sym_string, STATE 6729), (sym_await, STATE 7017),
    (sym_identifier, ACTIONS 327), (anon_sym_import, ACTIONS 11), (anon_sym_from, ACTIONS 13),
    (anon_sym_LPAREN, ACTIONS 329), (anon_sym_STAR, ACTIONS 331), (anon_sym_print, ACTIONS 333),
    (anon_sym_comptime, ACTIONS 335), (anon_sym_assert, ACTIONS 23),
    (anon_sym___comptime_assert, ACTIONS 25), (anon_sym_return, ACTIONS 27),
    (anon_sym_del, ACTIONS 29), (anon_sym_raise, ACTIONS 31), (anon_sym_pass, ACTIONS 33),
    (anon_sym_break, ACTIONS 35), (anon_sym_continue, ACTIONS 37), (anon_sym_match, ACTIONS 337),
    (anon_sym_async, ACTIONS 339), (anon_sym_def, ACTIONS 341), (anon_sym_LBRACK, ACTIONS 343),
    (anon_sym_LBRACE, ACTIONS 61), (anon_sym_STAR_STAR, ACTIONS 345),
    (anon_sym_global, ACTIONS 63), (anon_sym_nonlocal, ACTIONS 65), (anon_sym_exec, ACTIONS 347),
    (anon_sym_type, ACTIONS 349), (anon_sym_mut, ACTIONS 339), (anon_sym_out, ACTIONS 339),
    (anon_sym_DASH, ACTIONS 79), (anon_sym_PLUS, ACTIONS 79), (anon_sym_ref, ACTIONS 81),
    (anon_sym_var, ACTIONS 81), (anon_sym_not, ACTIONS 83), (anon_sym_TILDE, ACTIONS 79),
    (anon_sym_lambda, ACTIONS 85), (anon_sym_yield, ACTIONS 87), (sym_ellipsis, ACTIONS 89),
    (anon_sym___mlir_type, ACTIONS 91), (sym_integer, ACTIONS 93), (sym_float, ACTIONS 89),
    (anon_sym_await, ACTIONS 351), (sym_true, ACTIONS 93), (sym_false, ACTIONS 93),
    (sym_none, ACTIONS 93), (sym_comment, ACTIONS 3), (sym_line_continuation, ACTIONS 3),
    (sym__newline, ACTIONS 1169), (sym__indent, ACTIONS 1171), (sym_string_start, ACTIONS 97)]"

definition parse_table_1134 :: "(nat \<times> nat) list" where "parse_table_1134 = [
    (sym__simple_statements, STATE 4915), (sym_import_statement, STATE 12239),
    (sym_future_import_statement, STATE 12239), (sym_import_from_statement, STATE 12239),
    (sym_print_statement, STATE 12239), (sym_assert_statement, STATE 12239),
    (sym_comptime_assert_statement, STATE 12239), (sym_expression_statement, STATE 12239),
    (sym_tuple_expression, STATE 12425), (sym_named_expression, STATE 7969),
    (sym__named_expression_lhs, STATE 12752), (sym_return_statement, STATE 12239),
    (sym_delete_statement, STATE 12239), (sym_raise_statement, STATE 12239),
    (sym_pass_statement, STATE 12239), (sym_break_statement, STATE 12239),
    (sym_continue_statement, STATE 12239), (sym_global_statement, STATE 12239),
    (sym_nonlocal_statement, STATE 12239), (sym_exec_statement, STATE 12239),
    (sym_type_alias_statement, STATE 12239), (sym_parameterized_alias_statement, STATE 12239),
    (sym_pattern, STATE 8086), (sym_tuple_pattern, STATE 8101), (sym_list_pattern, STATE 8101),
    (sym_list_splat_pattern, STATE 6795), (sym_as_pattern, STATE 7969),
    (sym_expression, STATE 9623), (sym_primary_expression, STATE 7326),
    (sym_comptime_expression, STATE 7017), (sym_transfer_expression, STATE 7017),
    (sym_not_operator, STATE 7969), (sym_boolean_operator, STATE 7969),
    (sym_binary_operator, STATE 7017), (sym_unary_operator, STATE 7017),
    (sym_comparison_operator, STATE 7969), (sym_lambda, STATE 7969),
    (sym_assignment, STATE 12425), (sym_augmented_assignment, STATE 12425),
    (sym_pattern_list, STATE 8578), (sym_yield, STATE 12425), (sym_attribute, STATE 6796),
    (sym_subscript, STATE 6797), (sym_call, STATE 6768), (sym_type, STATE 10130),
    (sym_called_type, STATE 9093), (sym_function_type, STATE 9093), (sym_splat_type, STATE 9093),
    (sym_generic_type, STATE 8287), (sym_union_type, STATE 9093),
    (sym_intersection_type, STATE 9093), (sym__intersection_operand, STATE 12294),
    (sym_constrained_type, STATE 9093), (sym_member_type, STATE 8165),
    (sym_mlir_type, STATE 7017), (sym_list, STATE 7017), (sym_set, STATE 7017),
    (sym_tuple, STATE 7017), (sym_dictionary, STATE 7017), (sym_struct_literal, STATE 7017),
    (sym_list_comprehension, STATE 7017), (sym_dictionary_comprehension, STATE 7017),
    (sym_set_comprehension, STATE 7017), (sym_generator_expression, STATE 7017),
    (sym_parenthesized_expression, STATE 7017), (sym_conditional_expression, STATE 7969),
    (sym_concatenated_string, STATE 7017), (sym_string, STATE 6729), (sym_await, STATE 7017),
    (sym_identifier, ACTIONS 327), (anon_sym_import, ACTIONS 11), (anon_sym_from, ACTIONS 13),
    (anon_sym_LPAREN, ACTIONS 329), (anon_sym_STAR, ACTIONS 331), (anon_sym_print, ACTIONS 333),
    (anon_sym_comptime, ACTIONS 335), (anon_sym_assert, ACTIONS 23),
    (anon_sym___comptime_assert, ACTIONS 25), (anon_sym_return, ACTIONS 27),
    (anon_sym_del, ACTIONS 29), (anon_sym_raise, ACTIONS 31), (anon_sym_pass, ACTIONS 33),
    (anon_sym_break, ACTIONS 35), (anon_sym_continue, ACTIONS 37), (anon_sym_match, ACTIONS 337),
    (anon_sym_async, ACTIONS 339), (anon_sym_def, ACTIONS 341), (anon_sym_LBRACK, ACTIONS 343),
    (anon_sym_LBRACE, ACTIONS 61), (anon_sym_STAR_STAR, ACTIONS 345),
    (anon_sym_global, ACTIONS 63), (anon_sym_nonlocal, ACTIONS 65), (anon_sym_exec, ACTIONS 347),
    (anon_sym_type, ACTIONS 349), (anon_sym_mut, ACTIONS 339), (anon_sym_out, ACTIONS 339),
    (anon_sym_DASH, ACTIONS 79), (anon_sym_PLUS, ACTIONS 79), (anon_sym_ref, ACTIONS 81),
    (anon_sym_var, ACTIONS 81), (anon_sym_not, ACTIONS 83), (anon_sym_TILDE, ACTIONS 79),
    (anon_sym_lambda, ACTIONS 85), (anon_sym_yield, ACTIONS 87), (sym_ellipsis, ACTIONS 89),
    (anon_sym___mlir_type, ACTIONS 91), (sym_integer, ACTIONS 93), (sym_float, ACTIONS 89),
    (anon_sym_await, ACTIONS 351), (sym_true, ACTIONS 93), (sym_false, ACTIONS 93),
    (sym_none, ACTIONS 93), (sym_comment, ACTIONS 3), (sym_line_continuation, ACTIONS 3),
    (sym__newline, ACTIONS 1173), (sym__indent, ACTIONS 1175), (sym_string_start, ACTIONS 97)]"

definition parse_table_1135 :: "(nat \<times> nat) list" where "parse_table_1135 = [
    (sym__simple_statements, STATE 4318), (sym_import_statement, STATE 11814),
    (sym_future_import_statement, STATE 11814), (sym_import_from_statement, STATE 11814),
    (sym_print_statement, STATE 11814), (sym_assert_statement, STATE 11814),
    (sym_comptime_assert_statement, STATE 11814), (sym_expression_statement, STATE 11814),
    (sym_tuple_expression, STATE 12425), (sym_named_expression, STATE 7969),
    (sym__named_expression_lhs, STATE 12752), (sym_return_statement, STATE 11814),
    (sym_delete_statement, STATE 11814), (sym_raise_statement, STATE 11814),
    (sym_pass_statement, STATE 11814), (sym_break_statement, STATE 11814),
    (sym_continue_statement, STATE 11814), (sym_global_statement, STATE 11814),
    (sym_nonlocal_statement, STATE 11814), (sym_exec_statement, STATE 11814),
    (sym_type_alias_statement, STATE 11814), (sym_parameterized_alias_statement, STATE 11814),
    (sym_pattern, STATE 8086), (sym_tuple_pattern, STATE 8101), (sym_list_pattern, STATE 8101),
    (sym_list_splat_pattern, STATE 6795), (sym_as_pattern, STATE 7969),
    (sym_expression, STATE 9623), (sym_primary_expression, STATE 7326),
    (sym_comptime_expression, STATE 7017), (sym_transfer_expression, STATE 7017),
    (sym_not_operator, STATE 7969), (sym_boolean_operator, STATE 7969),
    (sym_binary_operator, STATE 7017), (sym_unary_operator, STATE 7017),
    (sym_comparison_operator, STATE 7969), (sym_lambda, STATE 7969),
    (sym_assignment, STATE 12425), (sym_augmented_assignment, STATE 12425),
    (sym_pattern_list, STATE 8578), (sym_yield, STATE 12425), (sym_attribute, STATE 6796),
    (sym_subscript, STATE 6797), (sym_call, STATE 6768), (sym_type, STATE 10130),
    (sym_called_type, STATE 9093), (sym_function_type, STATE 9093), (sym_splat_type, STATE 9093),
    (sym_generic_type, STATE 8287), (sym_union_type, STATE 9093),
    (sym_intersection_type, STATE 9093), (sym__intersection_operand, STATE 12294),
    (sym_constrained_type, STATE 9093), (sym_member_type, STATE 8165),
    (sym_mlir_type, STATE 7017), (sym_list, STATE 7017), (sym_set, STATE 7017),
    (sym_tuple, STATE 7017), (sym_dictionary, STATE 7017), (sym_struct_literal, STATE 7017),
    (sym_list_comprehension, STATE 7017), (sym_dictionary_comprehension, STATE 7017),
    (sym_set_comprehension, STATE 7017), (sym_generator_expression, STATE 7017),
    (sym_parenthesized_expression, STATE 7017), (sym_conditional_expression, STATE 7969),
    (sym_concatenated_string, STATE 7017), (sym_string, STATE 6729), (sym_await, STATE 7017),
    (sym_identifier, ACTIONS 327), (anon_sym_import, ACTIONS 11), (anon_sym_from, ACTIONS 13),
    (anon_sym_LPAREN, ACTIONS 329), (anon_sym_STAR, ACTIONS 331), (anon_sym_print, ACTIONS 333),
    (anon_sym_comptime, ACTIONS 335), (anon_sym_assert, ACTIONS 23),
    (anon_sym___comptime_assert, ACTIONS 25), (anon_sym_return, ACTIONS 27),
    (anon_sym_del, ACTIONS 29), (anon_sym_raise, ACTIONS 31), (anon_sym_pass, ACTIONS 33),
    (anon_sym_break, ACTIONS 35), (anon_sym_continue, ACTIONS 37), (anon_sym_match, ACTIONS 337),
    (anon_sym_async, ACTIONS 339), (anon_sym_def, ACTIONS 341), (anon_sym_LBRACK, ACTIONS 343),
    (anon_sym_LBRACE, ACTIONS 61), (anon_sym_STAR_STAR, ACTIONS 345),
    (anon_sym_global, ACTIONS 63), (anon_sym_nonlocal, ACTIONS 65), (anon_sym_exec, ACTIONS 347),
    (anon_sym_type, ACTIONS 349), (anon_sym_mut, ACTIONS 339), (anon_sym_out, ACTIONS 339),
    (anon_sym_DASH, ACTIONS 79), (anon_sym_PLUS, ACTIONS 79), (anon_sym_ref, ACTIONS 81),
    (anon_sym_var, ACTIONS 81), (anon_sym_not, ACTIONS 83), (anon_sym_TILDE, ACTIONS 79),
    (anon_sym_lambda, ACTIONS 85), (anon_sym_yield, ACTIONS 87), (sym_ellipsis, ACTIONS 89),
    (anon_sym___mlir_type, ACTIONS 91), (sym_integer, ACTIONS 93), (sym_float, ACTIONS 89),
    (anon_sym_await, ACTIONS 351), (sym_true, ACTIONS 93), (sym_false, ACTIONS 93),
    (sym_none, ACTIONS 93), (sym_comment, ACTIONS 3), (sym_line_continuation, ACTIONS 3),
    (sym__newline, ACTIONS 1177), (sym__indent, ACTIONS 1179), (sym_string_start, ACTIONS 97)]"

definition parse_table_1136 :: "(nat \<times> nat) list" where "parse_table_1136 = [
    (sym__simple_statements, STATE 5448), (sym_import_statement, STATE 12239),
    (sym_future_import_statement, STATE 12239), (sym_import_from_statement, STATE 12239),
    (sym_print_statement, STATE 12239), (sym_assert_statement, STATE 12239),
    (sym_comptime_assert_statement, STATE 12239), (sym_expression_statement, STATE 12239),
    (sym_tuple_expression, STATE 12425), (sym_named_expression, STATE 7969),
    (sym__named_expression_lhs, STATE 12752), (sym_return_statement, STATE 12239),
    (sym_delete_statement, STATE 12239), (sym_raise_statement, STATE 12239),
    (sym_pass_statement, STATE 12239), (sym_break_statement, STATE 12239),
    (sym_continue_statement, STATE 12239), (sym_global_statement, STATE 12239),
    (sym_nonlocal_statement, STATE 12239), (sym_exec_statement, STATE 12239),
    (sym_type_alias_statement, STATE 12239), (sym_parameterized_alias_statement, STATE 12239),
    (sym_pattern, STATE 8086), (sym_tuple_pattern, STATE 8101), (sym_list_pattern, STATE 8101),
    (sym_list_splat_pattern, STATE 6795), (sym_as_pattern, STATE 7969),
    (sym_expression, STATE 9623), (sym_primary_expression, STATE 7326),
    (sym_comptime_expression, STATE 7017), (sym_transfer_expression, STATE 7017),
    (sym_not_operator, STATE 7969), (sym_boolean_operator, STATE 7969),
    (sym_binary_operator, STATE 7017), (sym_unary_operator, STATE 7017),
    (sym_comparison_operator, STATE 7969), (sym_lambda, STATE 7969),
    (sym_assignment, STATE 12425), (sym_augmented_assignment, STATE 12425),
    (sym_pattern_list, STATE 8578), (sym_yield, STATE 12425), (sym_attribute, STATE 6796),
    (sym_subscript, STATE 6797), (sym_call, STATE 6768), (sym_type, STATE 10130),
    (sym_called_type, STATE 9093), (sym_function_type, STATE 9093), (sym_splat_type, STATE 9093),
    (sym_generic_type, STATE 8287), (sym_union_type, STATE 9093),
    (sym_intersection_type, STATE 9093), (sym__intersection_operand, STATE 12294),
    (sym_constrained_type, STATE 9093), (sym_member_type, STATE 8165),
    (sym_mlir_type, STATE 7017), (sym_list, STATE 7017), (sym_set, STATE 7017),
    (sym_tuple, STATE 7017), (sym_dictionary, STATE 7017), (sym_struct_literal, STATE 7017),
    (sym_list_comprehension, STATE 7017), (sym_dictionary_comprehension, STATE 7017),
    (sym_set_comprehension, STATE 7017), (sym_generator_expression, STATE 7017),
    (sym_parenthesized_expression, STATE 7017), (sym_conditional_expression, STATE 7969),
    (sym_concatenated_string, STATE 7017), (sym_string, STATE 6729), (sym_await, STATE 7017),
    (sym_identifier, ACTIONS 327), (anon_sym_import, ACTIONS 11), (anon_sym_from, ACTIONS 13),
    (anon_sym_LPAREN, ACTIONS 329), (anon_sym_STAR, ACTIONS 331), (anon_sym_print, ACTIONS 333),
    (anon_sym_comptime, ACTIONS 335), (anon_sym_assert, ACTIONS 23),
    (anon_sym___comptime_assert, ACTIONS 25), (anon_sym_return, ACTIONS 27),
    (anon_sym_del, ACTIONS 29), (anon_sym_raise, ACTIONS 31), (anon_sym_pass, ACTIONS 33),
    (anon_sym_break, ACTIONS 35), (anon_sym_continue, ACTIONS 37), (anon_sym_match, ACTIONS 337),
    (anon_sym_async, ACTIONS 339), (anon_sym_def, ACTIONS 341), (anon_sym_LBRACK, ACTIONS 343),
    (anon_sym_LBRACE, ACTIONS 61), (anon_sym_STAR_STAR, ACTIONS 345),
    (anon_sym_global, ACTIONS 63), (anon_sym_nonlocal, ACTIONS 65), (anon_sym_exec, ACTIONS 347),
    (anon_sym_type, ACTIONS 349), (anon_sym_mut, ACTIONS 339), (anon_sym_out, ACTIONS 339),
    (anon_sym_DASH, ACTIONS 79), (anon_sym_PLUS, ACTIONS 79), (anon_sym_ref, ACTIONS 81),
    (anon_sym_var, ACTIONS 81), (anon_sym_not, ACTIONS 83), (anon_sym_TILDE, ACTIONS 79),
    (anon_sym_lambda, ACTIONS 85), (anon_sym_yield, ACTIONS 87), (sym_ellipsis, ACTIONS 89),
    (anon_sym___mlir_type, ACTIONS 91), (sym_integer, ACTIONS 93), (sym_float, ACTIONS 89),
    (anon_sym_await, ACTIONS 351), (sym_true, ACTIONS 93), (sym_false, ACTIONS 93),
    (sym_none, ACTIONS 93), (sym_comment, ACTIONS 3), (sym_line_continuation, ACTIONS 3),
    (sym__newline, ACTIONS 1181), (sym__indent, ACTIONS 1183), (sym_string_start, ACTIONS 97)]"

definition parse_table_1137 :: "(nat \<times> nat) list" where "parse_table_1137 = [
    (sym__simple_statements, STATE 4599), (sym_import_statement, STATE 12239),
    (sym_future_import_statement, STATE 12239), (sym_import_from_statement, STATE 12239),
    (sym_print_statement, STATE 12239), (sym_assert_statement, STATE 12239),
    (sym_comptime_assert_statement, STATE 12239), (sym_expression_statement, STATE 12239),
    (sym_tuple_expression, STATE 12425), (sym_named_expression, STATE 7969),
    (sym__named_expression_lhs, STATE 12752), (sym_return_statement, STATE 12239),
    (sym_delete_statement, STATE 12239), (sym_raise_statement, STATE 12239),
    (sym_pass_statement, STATE 12239), (sym_break_statement, STATE 12239),
    (sym_continue_statement, STATE 12239), (sym_global_statement, STATE 12239),
    (sym_nonlocal_statement, STATE 12239), (sym_exec_statement, STATE 12239),
    (sym_type_alias_statement, STATE 12239), (sym_parameterized_alias_statement, STATE 12239),
    (sym_pattern, STATE 8086), (sym_tuple_pattern, STATE 8101), (sym_list_pattern, STATE 8101),
    (sym_list_splat_pattern, STATE 6795), (sym_as_pattern, STATE 7969),
    (sym_expression, STATE 9623), (sym_primary_expression, STATE 7326),
    (sym_comptime_expression, STATE 7017), (sym_transfer_expression, STATE 7017),
    (sym_not_operator, STATE 7969), (sym_boolean_operator, STATE 7969),
    (sym_binary_operator, STATE 7017), (sym_unary_operator, STATE 7017),
    (sym_comparison_operator, STATE 7969), (sym_lambda, STATE 7969),
    (sym_assignment, STATE 12425), (sym_augmented_assignment, STATE 12425),
    (sym_pattern_list, STATE 8578), (sym_yield, STATE 12425), (sym_attribute, STATE 6796),
    (sym_subscript, STATE 6797), (sym_call, STATE 6768), (sym_type, STATE 10130),
    (sym_called_type, STATE 9093), (sym_function_type, STATE 9093), (sym_splat_type, STATE 9093),
    (sym_generic_type, STATE 8287), (sym_union_type, STATE 9093),
    (sym_intersection_type, STATE 9093), (sym__intersection_operand, STATE 12294),
    (sym_constrained_type, STATE 9093), (sym_member_type, STATE 8165),
    (sym_mlir_type, STATE 7017), (sym_list, STATE 7017), (sym_set, STATE 7017),
    (sym_tuple, STATE 7017), (sym_dictionary, STATE 7017), (sym_struct_literal, STATE 7017),
    (sym_list_comprehension, STATE 7017), (sym_dictionary_comprehension, STATE 7017),
    (sym_set_comprehension, STATE 7017), (sym_generator_expression, STATE 7017),
    (sym_parenthesized_expression, STATE 7017), (sym_conditional_expression, STATE 7969),
    (sym_concatenated_string, STATE 7017), (sym_string, STATE 6729), (sym_await, STATE 7017),
    (sym_identifier, ACTIONS 327), (anon_sym_import, ACTIONS 11), (anon_sym_from, ACTIONS 13),
    (anon_sym_LPAREN, ACTIONS 329), (anon_sym_STAR, ACTIONS 331), (anon_sym_print, ACTIONS 333),
    (anon_sym_comptime, ACTIONS 335), (anon_sym_assert, ACTIONS 23),
    (anon_sym___comptime_assert, ACTIONS 25), (anon_sym_return, ACTIONS 27),
    (anon_sym_del, ACTIONS 29), (anon_sym_raise, ACTIONS 31), (anon_sym_pass, ACTIONS 33),
    (anon_sym_break, ACTIONS 35), (anon_sym_continue, ACTIONS 37), (anon_sym_match, ACTIONS 337),
    (anon_sym_async, ACTIONS 339), (anon_sym_def, ACTIONS 341), (anon_sym_LBRACK, ACTIONS 343),
    (anon_sym_LBRACE, ACTIONS 61), (anon_sym_STAR_STAR, ACTIONS 345),
    (anon_sym_global, ACTIONS 63), (anon_sym_nonlocal, ACTIONS 65), (anon_sym_exec, ACTIONS 347),
    (anon_sym_type, ACTIONS 349), (anon_sym_mut, ACTIONS 339), (anon_sym_out, ACTIONS 339),
    (anon_sym_DASH, ACTIONS 79), (anon_sym_PLUS, ACTIONS 79), (anon_sym_ref, ACTIONS 81),
    (anon_sym_var, ACTIONS 81), (anon_sym_not, ACTIONS 83), (anon_sym_TILDE, ACTIONS 79),
    (anon_sym_lambda, ACTIONS 85), (anon_sym_yield, ACTIONS 87), (sym_ellipsis, ACTIONS 89),
    (anon_sym___mlir_type, ACTIONS 91), (sym_integer, ACTIONS 93), (sym_float, ACTIONS 89),
    (anon_sym_await, ACTIONS 351), (sym_true, ACTIONS 93), (sym_false, ACTIONS 93),
    (sym_none, ACTIONS 93), (sym_comment, ACTIONS 3), (sym_line_continuation, ACTIONS 3),
    (sym__newline, ACTIONS 1185), (sym__indent, ACTIONS 1187), (sym_string_start, ACTIONS 97)]"

definition parse_table_1138 :: "(nat \<times> nat) list" where "parse_table_1138 = [
    (sym__simple_statements, STATE 5152), (sym_import_statement, STATE 12239),
    (sym_future_import_statement, STATE 12239), (sym_import_from_statement, STATE 12239),
    (sym_print_statement, STATE 12239), (sym_assert_statement, STATE 12239),
    (sym_comptime_assert_statement, STATE 12239), (sym_expression_statement, STATE 12239),
    (sym_tuple_expression, STATE 12425), (sym_named_expression, STATE 7969),
    (sym__named_expression_lhs, STATE 12752), (sym_return_statement, STATE 12239),
    (sym_delete_statement, STATE 12239), (sym_raise_statement, STATE 12239),
    (sym_pass_statement, STATE 12239), (sym_break_statement, STATE 12239),
    (sym_continue_statement, STATE 12239), (sym_global_statement, STATE 12239),
    (sym_nonlocal_statement, STATE 12239), (sym_exec_statement, STATE 12239),
    (sym_type_alias_statement, STATE 12239), (sym_parameterized_alias_statement, STATE 12239),
    (sym_pattern, STATE 8086), (sym_tuple_pattern, STATE 8101), (sym_list_pattern, STATE 8101),
    (sym_list_splat_pattern, STATE 6795), (sym_as_pattern, STATE 7969),
    (sym_expression, STATE 9623), (sym_primary_expression, STATE 7326),
    (sym_comptime_expression, STATE 7017), (sym_transfer_expression, STATE 7017),
    (sym_not_operator, STATE 7969), (sym_boolean_operator, STATE 7969),
    (sym_binary_operator, STATE 7017), (sym_unary_operator, STATE 7017),
    (sym_comparison_operator, STATE 7969), (sym_lambda, STATE 7969),
    (sym_assignment, STATE 12425), (sym_augmented_assignment, STATE 12425),
    (sym_pattern_list, STATE 8578), (sym_yield, STATE 12425), (sym_attribute, STATE 6796),
    (sym_subscript, STATE 6797), (sym_call, STATE 6768), (sym_type, STATE 10130),
    (sym_called_type, STATE 9093), (sym_function_type, STATE 9093), (sym_splat_type, STATE 9093),
    (sym_generic_type, STATE 8287), (sym_union_type, STATE 9093),
    (sym_intersection_type, STATE 9093), (sym__intersection_operand, STATE 12294),
    (sym_constrained_type, STATE 9093), (sym_member_type, STATE 8165),
    (sym_mlir_type, STATE 7017), (sym_list, STATE 7017), (sym_set, STATE 7017),
    (sym_tuple, STATE 7017), (sym_dictionary, STATE 7017), (sym_struct_literal, STATE 7017),
    (sym_list_comprehension, STATE 7017), (sym_dictionary_comprehension, STATE 7017),
    (sym_set_comprehension, STATE 7017), (sym_generator_expression, STATE 7017),
    (sym_parenthesized_expression, STATE 7017), (sym_conditional_expression, STATE 7969),
    (sym_concatenated_string, STATE 7017), (sym_string, STATE 6729), (sym_await, STATE 7017),
    (sym_identifier, ACTIONS 327), (anon_sym_import, ACTIONS 11), (anon_sym_from, ACTIONS 13),
    (anon_sym_LPAREN, ACTIONS 329), (anon_sym_STAR, ACTIONS 331), (anon_sym_print, ACTIONS 333),
    (anon_sym_comptime, ACTIONS 335), (anon_sym_assert, ACTIONS 23),
    (anon_sym___comptime_assert, ACTIONS 25), (anon_sym_return, ACTIONS 27),
    (anon_sym_del, ACTIONS 29), (anon_sym_raise, ACTIONS 31), (anon_sym_pass, ACTIONS 33),
    (anon_sym_break, ACTIONS 35), (anon_sym_continue, ACTIONS 37), (anon_sym_match, ACTIONS 337),
    (anon_sym_async, ACTIONS 339), (anon_sym_def, ACTIONS 341), (anon_sym_LBRACK, ACTIONS 343),
    (anon_sym_LBRACE, ACTIONS 61), (anon_sym_STAR_STAR, ACTIONS 345),
    (anon_sym_global, ACTIONS 63), (anon_sym_nonlocal, ACTIONS 65), (anon_sym_exec, ACTIONS 347),
    (anon_sym_type, ACTIONS 349), (anon_sym_mut, ACTIONS 339), (anon_sym_out, ACTIONS 339),
    (anon_sym_DASH, ACTIONS 79), (anon_sym_PLUS, ACTIONS 79), (anon_sym_ref, ACTIONS 81),
    (anon_sym_var, ACTIONS 81), (anon_sym_not, ACTIONS 83), (anon_sym_TILDE, ACTIONS 79),
    (anon_sym_lambda, ACTIONS 85), (anon_sym_yield, ACTIONS 87), (sym_ellipsis, ACTIONS 89),
    (anon_sym___mlir_type, ACTIONS 91), (sym_integer, ACTIONS 93), (sym_float, ACTIONS 89),
    (anon_sym_await, ACTIONS 351), (sym_true, ACTIONS 93), (sym_false, ACTIONS 93),
    (sym_none, ACTIONS 93), (sym_comment, ACTIONS 3), (sym_line_continuation, ACTIONS 3),
    (sym__newline, ACTIONS 1189), (sym__indent, ACTIONS 1191), (sym_string_start, ACTIONS 97)]"

definition parse_table_1139 :: "(nat \<times> nat) list" where "parse_table_1139 = [
    (sym__simple_statements, STATE 4642), (sym_import_statement, STATE 11814),
    (sym_future_import_statement, STATE 11814), (sym_import_from_statement, STATE 11814),
    (sym_print_statement, STATE 11814), (sym_assert_statement, STATE 11814),
    (sym_comptime_assert_statement, STATE 11814), (sym_expression_statement, STATE 11814),
    (sym_tuple_expression, STATE 12425), (sym_named_expression, STATE 7969),
    (sym__named_expression_lhs, STATE 12752), (sym_return_statement, STATE 11814),
    (sym_delete_statement, STATE 11814), (sym_raise_statement, STATE 11814),
    (sym_pass_statement, STATE 11814), (sym_break_statement, STATE 11814),
    (sym_continue_statement, STATE 11814), (sym_global_statement, STATE 11814),
    (sym_nonlocal_statement, STATE 11814), (sym_exec_statement, STATE 11814),
    (sym_type_alias_statement, STATE 11814), (sym_parameterized_alias_statement, STATE 11814),
    (sym_pattern, STATE 8086), (sym_tuple_pattern, STATE 8101), (sym_list_pattern, STATE 8101),
    (sym_list_splat_pattern, STATE 6795), (sym_as_pattern, STATE 7969),
    (sym_expression, STATE 9623), (sym_primary_expression, STATE 7326),
    (sym_comptime_expression, STATE 7017), (sym_transfer_expression, STATE 7017),
    (sym_not_operator, STATE 7969), (sym_boolean_operator, STATE 7969),
    (sym_binary_operator, STATE 7017), (sym_unary_operator, STATE 7017),
    (sym_comparison_operator, STATE 7969), (sym_lambda, STATE 7969),
    (sym_assignment, STATE 12425), (sym_augmented_assignment, STATE 12425),
    (sym_pattern_list, STATE 8578), (sym_yield, STATE 12425), (sym_attribute, STATE 6796),
    (sym_subscript, STATE 6797), (sym_call, STATE 6768), (sym_type, STATE 10130),
    (sym_called_type, STATE 9093), (sym_function_type, STATE 9093), (sym_splat_type, STATE 9093),
    (sym_generic_type, STATE 8287), (sym_union_type, STATE 9093),
    (sym_intersection_type, STATE 9093), (sym__intersection_operand, STATE 12294),
    (sym_constrained_type, STATE 9093), (sym_member_type, STATE 8165),
    (sym_mlir_type, STATE 7017), (sym_list, STATE 7017), (sym_set, STATE 7017),
    (sym_tuple, STATE 7017), (sym_dictionary, STATE 7017), (sym_struct_literal, STATE 7017),
    (sym_list_comprehension, STATE 7017), (sym_dictionary_comprehension, STATE 7017),
    (sym_set_comprehension, STATE 7017), (sym_generator_expression, STATE 7017),
    (sym_parenthesized_expression, STATE 7017), (sym_conditional_expression, STATE 7969),
    (sym_concatenated_string, STATE 7017), (sym_string, STATE 6729), (sym_await, STATE 7017),
    (sym_identifier, ACTIONS 327), (anon_sym_import, ACTIONS 11), (anon_sym_from, ACTIONS 13),
    (anon_sym_LPAREN, ACTIONS 329), (anon_sym_STAR, ACTIONS 331), (anon_sym_print, ACTIONS 333),
    (anon_sym_comptime, ACTIONS 335), (anon_sym_assert, ACTIONS 23),
    (anon_sym___comptime_assert, ACTIONS 25), (anon_sym_return, ACTIONS 27),
    (anon_sym_del, ACTIONS 29), (anon_sym_raise, ACTIONS 31), (anon_sym_pass, ACTIONS 33),
    (anon_sym_break, ACTIONS 35), (anon_sym_continue, ACTIONS 37), (anon_sym_match, ACTIONS 337),
    (anon_sym_async, ACTIONS 339), (anon_sym_def, ACTIONS 341), (anon_sym_LBRACK, ACTIONS 343),
    (anon_sym_LBRACE, ACTIONS 61), (anon_sym_STAR_STAR, ACTIONS 345),
    (anon_sym_global, ACTIONS 63), (anon_sym_nonlocal, ACTIONS 65), (anon_sym_exec, ACTIONS 347),
    (anon_sym_type, ACTIONS 349), (anon_sym_mut, ACTIONS 339), (anon_sym_out, ACTIONS 339),
    (anon_sym_DASH, ACTIONS 79), (anon_sym_PLUS, ACTIONS 79), (anon_sym_ref, ACTIONS 81),
    (anon_sym_var, ACTIONS 81), (anon_sym_not, ACTIONS 83), (anon_sym_TILDE, ACTIONS 79),
    (anon_sym_lambda, ACTIONS 85), (anon_sym_yield, ACTIONS 87), (sym_ellipsis, ACTIONS 89),
    (anon_sym___mlir_type, ACTIONS 91), (sym_integer, ACTIONS 93), (sym_float, ACTIONS 89),
    (anon_sym_await, ACTIONS 351), (sym_true, ACTIONS 93), (sym_false, ACTIONS 93),
    (sym_none, ACTIONS 93), (sym_comment, ACTIONS 3), (sym_line_continuation, ACTIONS 3),
    (sym__newline, ACTIONS 1193), (sym__indent, ACTIONS 1195), (sym_string_start, ACTIONS 97)]"

definition parse_table_1140 :: "(nat \<times> nat) list" where "parse_table_1140 = [
    (sym__simple_statements, STATE 5457), (sym_import_statement, STATE 12239),
    (sym_future_import_statement, STATE 12239), (sym_import_from_statement, STATE 12239),
    (sym_print_statement, STATE 12239), (sym_assert_statement, STATE 12239),
    (sym_comptime_assert_statement, STATE 12239), (sym_expression_statement, STATE 12239),
    (sym_tuple_expression, STATE 12425), (sym_named_expression, STATE 7969),
    (sym__named_expression_lhs, STATE 12752), (sym_return_statement, STATE 12239),
    (sym_delete_statement, STATE 12239), (sym_raise_statement, STATE 12239),
    (sym_pass_statement, STATE 12239), (sym_break_statement, STATE 12239),
    (sym_continue_statement, STATE 12239), (sym_global_statement, STATE 12239),
    (sym_nonlocal_statement, STATE 12239), (sym_exec_statement, STATE 12239),
    (sym_type_alias_statement, STATE 12239), (sym_parameterized_alias_statement, STATE 12239),
    (sym_pattern, STATE 8086), (sym_tuple_pattern, STATE 8101), (sym_list_pattern, STATE 8101),
    (sym_list_splat_pattern, STATE 6795), (sym_as_pattern, STATE 7969),
    (sym_expression, STATE 9623), (sym_primary_expression, STATE 7326),
    (sym_comptime_expression, STATE 7017), (sym_transfer_expression, STATE 7017),
    (sym_not_operator, STATE 7969), (sym_boolean_operator, STATE 7969),
    (sym_binary_operator, STATE 7017), (sym_unary_operator, STATE 7017),
    (sym_comparison_operator, STATE 7969), (sym_lambda, STATE 7969),
    (sym_assignment, STATE 12425), (sym_augmented_assignment, STATE 12425),
    (sym_pattern_list, STATE 8578), (sym_yield, STATE 12425), (sym_attribute, STATE 6796),
    (sym_subscript, STATE 6797), (sym_call, STATE 6768), (sym_type, STATE 10130),
    (sym_called_type, STATE 9093), (sym_function_type, STATE 9093), (sym_splat_type, STATE 9093),
    (sym_generic_type, STATE 8287), (sym_union_type, STATE 9093),
    (sym_intersection_type, STATE 9093), (sym__intersection_operand, STATE 12294),
    (sym_constrained_type, STATE 9093), (sym_member_type, STATE 8165),
    (sym_mlir_type, STATE 7017), (sym_list, STATE 7017), (sym_set, STATE 7017),
    (sym_tuple, STATE 7017), (sym_dictionary, STATE 7017), (sym_struct_literal, STATE 7017),
    (sym_list_comprehension, STATE 7017), (sym_dictionary_comprehension, STATE 7017),
    (sym_set_comprehension, STATE 7017), (sym_generator_expression, STATE 7017),
    (sym_parenthesized_expression, STATE 7017), (sym_conditional_expression, STATE 7969),
    (sym_concatenated_string, STATE 7017), (sym_string, STATE 6729), (sym_await, STATE 7017),
    (sym_identifier, ACTIONS 327), (anon_sym_import, ACTIONS 11), (anon_sym_from, ACTIONS 13),
    (anon_sym_LPAREN, ACTIONS 329), (anon_sym_STAR, ACTIONS 331), (anon_sym_print, ACTIONS 333),
    (anon_sym_comptime, ACTIONS 335), (anon_sym_assert, ACTIONS 23),
    (anon_sym___comptime_assert, ACTIONS 25), (anon_sym_return, ACTIONS 27),
    (anon_sym_del, ACTIONS 29), (anon_sym_raise, ACTIONS 31), (anon_sym_pass, ACTIONS 33),
    (anon_sym_break, ACTIONS 35), (anon_sym_continue, ACTIONS 37), (anon_sym_match, ACTIONS 337),
    (anon_sym_async, ACTIONS 339), (anon_sym_def, ACTIONS 341), (anon_sym_LBRACK, ACTIONS 343),
    (anon_sym_LBRACE, ACTIONS 61), (anon_sym_STAR_STAR, ACTIONS 345),
    (anon_sym_global, ACTIONS 63), (anon_sym_nonlocal, ACTIONS 65), (anon_sym_exec, ACTIONS 347),
    (anon_sym_type, ACTIONS 349), (anon_sym_mut, ACTIONS 339), (anon_sym_out, ACTIONS 339),
    (anon_sym_DASH, ACTIONS 79), (anon_sym_PLUS, ACTIONS 79), (anon_sym_ref, ACTIONS 81),
    (anon_sym_var, ACTIONS 81), (anon_sym_not, ACTIONS 83), (anon_sym_TILDE, ACTIONS 79),
    (anon_sym_lambda, ACTIONS 85), (anon_sym_yield, ACTIONS 87), (sym_ellipsis, ACTIONS 89),
    (anon_sym___mlir_type, ACTIONS 91), (sym_integer, ACTIONS 93), (sym_float, ACTIONS 89),
    (anon_sym_await, ACTIONS 351), (sym_true, ACTIONS 93), (sym_false, ACTIONS 93),
    (sym_none, ACTIONS 93), (sym_comment, ACTIONS 3), (sym_line_continuation, ACTIONS 3),
    (sym__newline, ACTIONS 1197), (sym__indent, ACTIONS 1199), (sym_string_start, ACTIONS 97)]"

definition parse_table_1141 :: "(nat \<times> nat) list" where "parse_table_1141 = [
    (sym__simple_statements, STATE 5850), (sym_import_statement, STATE 11814),
    (sym_future_import_statement, STATE 11814), (sym_import_from_statement, STATE 11814),
    (sym_print_statement, STATE 11814), (sym_assert_statement, STATE 11814),
    (sym_comptime_assert_statement, STATE 11814), (sym_expression_statement, STATE 11814),
    (sym_tuple_expression, STATE 12425), (sym_named_expression, STATE 7969),
    (sym__named_expression_lhs, STATE 12752), (sym_return_statement, STATE 11814),
    (sym_delete_statement, STATE 11814), (sym_raise_statement, STATE 11814),
    (sym_pass_statement, STATE 11814), (sym_break_statement, STATE 11814),
    (sym_continue_statement, STATE 11814), (sym_global_statement, STATE 11814),
    (sym_nonlocal_statement, STATE 11814), (sym_exec_statement, STATE 11814),
    (sym_type_alias_statement, STATE 11814), (sym_parameterized_alias_statement, STATE 11814),
    (sym_pattern, STATE 8086), (sym_tuple_pattern, STATE 8101), (sym_list_pattern, STATE 8101),
    (sym_list_splat_pattern, STATE 6795), (sym_as_pattern, STATE 7969),
    (sym_expression, STATE 9623), (sym_primary_expression, STATE 7326),
    (sym_comptime_expression, STATE 7017), (sym_transfer_expression, STATE 7017),
    (sym_not_operator, STATE 7969), (sym_boolean_operator, STATE 7969),
    (sym_binary_operator, STATE 7017), (sym_unary_operator, STATE 7017),
    (sym_comparison_operator, STATE 7969), (sym_lambda, STATE 7969),
    (sym_assignment, STATE 12425), (sym_augmented_assignment, STATE 12425),
    (sym_pattern_list, STATE 8578), (sym_yield, STATE 12425), (sym_attribute, STATE 6796),
    (sym_subscript, STATE 6797), (sym_call, STATE 6768), (sym_type, STATE 10130),
    (sym_called_type, STATE 9093), (sym_function_type, STATE 9093), (sym_splat_type, STATE 9093),
    (sym_generic_type, STATE 8287), (sym_union_type, STATE 9093),
    (sym_intersection_type, STATE 9093), (sym__intersection_operand, STATE 12294),
    (sym_constrained_type, STATE 9093), (sym_member_type, STATE 8165),
    (sym_mlir_type, STATE 7017), (sym_list, STATE 7017), (sym_set, STATE 7017),
    (sym_tuple, STATE 7017), (sym_dictionary, STATE 7017), (sym_struct_literal, STATE 7017),
    (sym_list_comprehension, STATE 7017), (sym_dictionary_comprehension, STATE 7017),
    (sym_set_comprehension, STATE 7017), (sym_generator_expression, STATE 7017),
    (sym_parenthesized_expression, STATE 7017), (sym_conditional_expression, STATE 7969),
    (sym_concatenated_string, STATE 7017), (sym_string, STATE 6729), (sym_await, STATE 7017),
    (sym_identifier, ACTIONS 327), (anon_sym_import, ACTIONS 11), (anon_sym_from, ACTIONS 13),
    (anon_sym_LPAREN, ACTIONS 329), (anon_sym_STAR, ACTIONS 331), (anon_sym_print, ACTIONS 333),
    (anon_sym_comptime, ACTIONS 335), (anon_sym_assert, ACTIONS 23),
    (anon_sym___comptime_assert, ACTIONS 25), (anon_sym_return, ACTIONS 27),
    (anon_sym_del, ACTIONS 29), (anon_sym_raise, ACTIONS 31), (anon_sym_pass, ACTIONS 33),
    (anon_sym_break, ACTIONS 35), (anon_sym_continue, ACTIONS 37), (anon_sym_match, ACTIONS 337),
    (anon_sym_async, ACTIONS 339), (anon_sym_def, ACTIONS 341), (anon_sym_LBRACK, ACTIONS 343),
    (anon_sym_LBRACE, ACTIONS 61), (anon_sym_STAR_STAR, ACTIONS 345),
    (anon_sym_global, ACTIONS 63), (anon_sym_nonlocal, ACTIONS 65), (anon_sym_exec, ACTIONS 347),
    (anon_sym_type, ACTIONS 349), (anon_sym_mut, ACTIONS 339), (anon_sym_out, ACTIONS 339),
    (anon_sym_DASH, ACTIONS 79), (anon_sym_PLUS, ACTIONS 79), (anon_sym_ref, ACTIONS 81),
    (anon_sym_var, ACTIONS 81), (anon_sym_not, ACTIONS 83), (anon_sym_TILDE, ACTIONS 79),
    (anon_sym_lambda, ACTIONS 85), (anon_sym_yield, ACTIONS 87), (sym_ellipsis, ACTIONS 89),
    (anon_sym___mlir_type, ACTIONS 91), (sym_integer, ACTIONS 93), (sym_float, ACTIONS 89),
    (anon_sym_await, ACTIONS 351), (sym_true, ACTIONS 93), (sym_false, ACTIONS 93),
    (sym_none, ACTIONS 93), (sym_comment, ACTIONS 3), (sym_line_continuation, ACTIONS 3),
    (sym__newline, ACTIONS 1201), (sym__indent, ACTIONS 1203), (sym_string_start, ACTIONS 97)]"

definition parse_table_1142 :: "(nat \<times> nat) list" where "parse_table_1142 = [
    (sym__simple_statements, STATE 5980), (sym_import_statement, STATE 12239),
    (sym_future_import_statement, STATE 12239), (sym_import_from_statement, STATE 12239),
    (sym_print_statement, STATE 12239), (sym_assert_statement, STATE 12239),
    (sym_comptime_assert_statement, STATE 12239), (sym_expression_statement, STATE 12239),
    (sym_tuple_expression, STATE 12425), (sym_named_expression, STATE 7969),
    (sym__named_expression_lhs, STATE 12752), (sym_return_statement, STATE 12239),
    (sym_delete_statement, STATE 12239), (sym_raise_statement, STATE 12239),
    (sym_pass_statement, STATE 12239), (sym_break_statement, STATE 12239),
    (sym_continue_statement, STATE 12239), (sym_global_statement, STATE 12239),
    (sym_nonlocal_statement, STATE 12239), (sym_exec_statement, STATE 12239),
    (sym_type_alias_statement, STATE 12239), (sym_parameterized_alias_statement, STATE 12239),
    (sym_pattern, STATE 8086), (sym_tuple_pattern, STATE 8101), (sym_list_pattern, STATE 8101),
    (sym_list_splat_pattern, STATE 6795), (sym_as_pattern, STATE 7969),
    (sym_expression, STATE 9623), (sym_primary_expression, STATE 7326),
    (sym_comptime_expression, STATE 7017), (sym_transfer_expression, STATE 7017),
    (sym_not_operator, STATE 7969), (sym_boolean_operator, STATE 7969),
    (sym_binary_operator, STATE 7017), (sym_unary_operator, STATE 7017),
    (sym_comparison_operator, STATE 7969), (sym_lambda, STATE 7969),
    (sym_assignment, STATE 12425), (sym_augmented_assignment, STATE 12425),
    (sym_pattern_list, STATE 8578), (sym_yield, STATE 12425), (sym_attribute, STATE 6796),
    (sym_subscript, STATE 6797), (sym_call, STATE 6768), (sym_type, STATE 10130),
    (sym_called_type, STATE 9093), (sym_function_type, STATE 9093), (sym_splat_type, STATE 9093),
    (sym_generic_type, STATE 8287), (sym_union_type, STATE 9093),
    (sym_intersection_type, STATE 9093), (sym__intersection_operand, STATE 12294),
    (sym_constrained_type, STATE 9093), (sym_member_type, STATE 8165),
    (sym_mlir_type, STATE 7017), (sym_list, STATE 7017), (sym_set, STATE 7017),
    (sym_tuple, STATE 7017), (sym_dictionary, STATE 7017), (sym_struct_literal, STATE 7017),
    (sym_list_comprehension, STATE 7017), (sym_dictionary_comprehension, STATE 7017),
    (sym_set_comprehension, STATE 7017), (sym_generator_expression, STATE 7017),
    (sym_parenthesized_expression, STATE 7017), (sym_conditional_expression, STATE 7969),
    (sym_concatenated_string, STATE 7017), (sym_string, STATE 6729), (sym_await, STATE 7017),
    (sym_identifier, ACTIONS 327), (anon_sym_import, ACTIONS 11), (anon_sym_from, ACTIONS 13),
    (anon_sym_LPAREN, ACTIONS 329), (anon_sym_STAR, ACTIONS 331), (anon_sym_print, ACTIONS 333),
    (anon_sym_comptime, ACTIONS 335), (anon_sym_assert, ACTIONS 23),
    (anon_sym___comptime_assert, ACTIONS 25), (anon_sym_return, ACTIONS 27),
    (anon_sym_del, ACTIONS 29), (anon_sym_raise, ACTIONS 31), (anon_sym_pass, ACTIONS 33),
    (anon_sym_break, ACTIONS 35), (anon_sym_continue, ACTIONS 37), (anon_sym_match, ACTIONS 337),
    (anon_sym_async, ACTIONS 339), (anon_sym_def, ACTIONS 341), (anon_sym_LBRACK, ACTIONS 343),
    (anon_sym_LBRACE, ACTIONS 61), (anon_sym_STAR_STAR, ACTIONS 345),
    (anon_sym_global, ACTIONS 63), (anon_sym_nonlocal, ACTIONS 65), (anon_sym_exec, ACTIONS 347),
    (anon_sym_type, ACTIONS 349), (anon_sym_mut, ACTIONS 339), (anon_sym_out, ACTIONS 339),
    (anon_sym_DASH, ACTIONS 79), (anon_sym_PLUS, ACTIONS 79), (anon_sym_ref, ACTIONS 81),
    (anon_sym_var, ACTIONS 81), (anon_sym_not, ACTIONS 83), (anon_sym_TILDE, ACTIONS 79),
    (anon_sym_lambda, ACTIONS 85), (anon_sym_yield, ACTIONS 87), (sym_ellipsis, ACTIONS 89),
    (anon_sym___mlir_type, ACTIONS 91), (sym_integer, ACTIONS 93), (sym_float, ACTIONS 89),
    (anon_sym_await, ACTIONS 351), (sym_true, ACTIONS 93), (sym_false, ACTIONS 93),
    (sym_none, ACTIONS 93), (sym_comment, ACTIONS 3), (sym_line_continuation, ACTIONS 3),
    (sym__newline, ACTIONS 1205), (sym__indent, ACTIONS 1207), (sym_string_start, ACTIONS 97)]"

definition parse_table_1143 :: "(nat \<times> nat) list" where "parse_table_1143 = [
    (sym__simple_statements, STATE 4647), (sym_import_statement, STATE 11814),
    (sym_future_import_statement, STATE 11814), (sym_import_from_statement, STATE 11814),
    (sym_print_statement, STATE 11814), (sym_assert_statement, STATE 11814),
    (sym_comptime_assert_statement, STATE 11814), (sym_expression_statement, STATE 11814),
    (sym_tuple_expression, STATE 12425), (sym_named_expression, STATE 7969),
    (sym__named_expression_lhs, STATE 12752), (sym_return_statement, STATE 11814),
    (sym_delete_statement, STATE 11814), (sym_raise_statement, STATE 11814),
    (sym_pass_statement, STATE 11814), (sym_break_statement, STATE 11814),
    (sym_continue_statement, STATE 11814), (sym_global_statement, STATE 11814),
    (sym_nonlocal_statement, STATE 11814), (sym_exec_statement, STATE 11814),
    (sym_type_alias_statement, STATE 11814), (sym_parameterized_alias_statement, STATE 11814),
    (sym_pattern, STATE 8086), (sym_tuple_pattern, STATE 8101), (sym_list_pattern, STATE 8101),
    (sym_list_splat_pattern, STATE 6795), (sym_as_pattern, STATE 7969),
    (sym_expression, STATE 9623), (sym_primary_expression, STATE 7326),
    (sym_comptime_expression, STATE 7017), (sym_transfer_expression, STATE 7017),
    (sym_not_operator, STATE 7969), (sym_boolean_operator, STATE 7969),
    (sym_binary_operator, STATE 7017), (sym_unary_operator, STATE 7017),
    (sym_comparison_operator, STATE 7969), (sym_lambda, STATE 7969),
    (sym_assignment, STATE 12425), (sym_augmented_assignment, STATE 12425),
    (sym_pattern_list, STATE 8578), (sym_yield, STATE 12425), (sym_attribute, STATE 6796),
    (sym_subscript, STATE 6797), (sym_call, STATE 6768), (sym_type, STATE 10130),
    (sym_called_type, STATE 9093), (sym_function_type, STATE 9093), (sym_splat_type, STATE 9093),
    (sym_generic_type, STATE 8287), (sym_union_type, STATE 9093),
    (sym_intersection_type, STATE 9093), (sym__intersection_operand, STATE 12294),
    (sym_constrained_type, STATE 9093), (sym_member_type, STATE 8165),
    (sym_mlir_type, STATE 7017), (sym_list, STATE 7017), (sym_set, STATE 7017),
    (sym_tuple, STATE 7017), (sym_dictionary, STATE 7017), (sym_struct_literal, STATE 7017),
    (sym_list_comprehension, STATE 7017), (sym_dictionary_comprehension, STATE 7017),
    (sym_set_comprehension, STATE 7017), (sym_generator_expression, STATE 7017),
    (sym_parenthesized_expression, STATE 7017), (sym_conditional_expression, STATE 7969),
    (sym_concatenated_string, STATE 7017), (sym_string, STATE 6729), (sym_await, STATE 7017),
    (sym_identifier, ACTIONS 327), (anon_sym_import, ACTIONS 11), (anon_sym_from, ACTIONS 13),
    (anon_sym_LPAREN, ACTIONS 329), (anon_sym_STAR, ACTIONS 331), (anon_sym_print, ACTIONS 333),
    (anon_sym_comptime, ACTIONS 335), (anon_sym_assert, ACTIONS 23),
    (anon_sym___comptime_assert, ACTIONS 25), (anon_sym_return, ACTIONS 27),
    (anon_sym_del, ACTIONS 29), (anon_sym_raise, ACTIONS 31), (anon_sym_pass, ACTIONS 33),
    (anon_sym_break, ACTIONS 35), (anon_sym_continue, ACTIONS 37), (anon_sym_match, ACTIONS 337),
    (anon_sym_async, ACTIONS 339), (anon_sym_def, ACTIONS 341), (anon_sym_LBRACK, ACTIONS 343),
    (anon_sym_LBRACE, ACTIONS 61), (anon_sym_STAR_STAR, ACTIONS 345),
    (anon_sym_global, ACTIONS 63), (anon_sym_nonlocal, ACTIONS 65), (anon_sym_exec, ACTIONS 347),
    (anon_sym_type, ACTIONS 349), (anon_sym_mut, ACTIONS 339), (anon_sym_out, ACTIONS 339),
    (anon_sym_DASH, ACTIONS 79), (anon_sym_PLUS, ACTIONS 79), (anon_sym_ref, ACTIONS 81),
    (anon_sym_var, ACTIONS 81), (anon_sym_not, ACTIONS 83), (anon_sym_TILDE, ACTIONS 79),
    (anon_sym_lambda, ACTIONS 85), (anon_sym_yield, ACTIONS 87), (sym_ellipsis, ACTIONS 89),
    (anon_sym___mlir_type, ACTIONS 91), (sym_integer, ACTIONS 93), (sym_float, ACTIONS 89),
    (anon_sym_await, ACTIONS 351), (sym_true, ACTIONS 93), (sym_false, ACTIONS 93),
    (sym_none, ACTIONS 93), (sym_comment, ACTIONS 3), (sym_line_continuation, ACTIONS 3),
    (sym__newline, ACTIONS 1209), (sym__indent, ACTIONS 1211), (sym_string_start, ACTIONS 97)]"

definition parse_table_1144 :: "(nat \<times> nat) list" where "parse_table_1144 = [
    (sym__simple_statements, STATE 4335), (sym_import_statement, STATE 11814),
    (sym_future_import_statement, STATE 11814), (sym_import_from_statement, STATE 11814),
    (sym_print_statement, STATE 11814), (sym_assert_statement, STATE 11814),
    (sym_comptime_assert_statement, STATE 11814), (sym_expression_statement, STATE 11814),
    (sym_tuple_expression, STATE 12425), (sym_named_expression, STATE 7969),
    (sym__named_expression_lhs, STATE 12752), (sym_return_statement, STATE 11814),
    (sym_delete_statement, STATE 11814), (sym_raise_statement, STATE 11814),
    (sym_pass_statement, STATE 11814), (sym_break_statement, STATE 11814),
    (sym_continue_statement, STATE 11814), (sym_global_statement, STATE 11814),
    (sym_nonlocal_statement, STATE 11814), (sym_exec_statement, STATE 11814),
    (sym_type_alias_statement, STATE 11814), (sym_parameterized_alias_statement, STATE 11814),
    (sym_pattern, STATE 8086), (sym_tuple_pattern, STATE 8101), (sym_list_pattern, STATE 8101),
    (sym_list_splat_pattern, STATE 6795), (sym_as_pattern, STATE 7969),
    (sym_expression, STATE 9623), (sym_primary_expression, STATE 7326),
    (sym_comptime_expression, STATE 7017), (sym_transfer_expression, STATE 7017),
    (sym_not_operator, STATE 7969), (sym_boolean_operator, STATE 7969),
    (sym_binary_operator, STATE 7017), (sym_unary_operator, STATE 7017),
    (sym_comparison_operator, STATE 7969), (sym_lambda, STATE 7969),
    (sym_assignment, STATE 12425), (sym_augmented_assignment, STATE 12425),
    (sym_pattern_list, STATE 8578), (sym_yield, STATE 12425), (sym_attribute, STATE 6796),
    (sym_subscript, STATE 6797), (sym_call, STATE 6768), (sym_type, STATE 10130),
    (sym_called_type, STATE 9093), (sym_function_type, STATE 9093), (sym_splat_type, STATE 9093),
    (sym_generic_type, STATE 8287), (sym_union_type, STATE 9093),
    (sym_intersection_type, STATE 9093), (sym__intersection_operand, STATE 12294),
    (sym_constrained_type, STATE 9093), (sym_member_type, STATE 8165),
    (sym_mlir_type, STATE 7017), (sym_list, STATE 7017), (sym_set, STATE 7017),
    (sym_tuple, STATE 7017), (sym_dictionary, STATE 7017), (sym_struct_literal, STATE 7017),
    (sym_list_comprehension, STATE 7017), (sym_dictionary_comprehension, STATE 7017),
    (sym_set_comprehension, STATE 7017), (sym_generator_expression, STATE 7017),
    (sym_parenthesized_expression, STATE 7017), (sym_conditional_expression, STATE 7969),
    (sym_concatenated_string, STATE 7017), (sym_string, STATE 6729), (sym_await, STATE 7017),
    (sym_identifier, ACTIONS 327), (anon_sym_import, ACTIONS 11), (anon_sym_from, ACTIONS 13),
    (anon_sym_LPAREN, ACTIONS 329), (anon_sym_STAR, ACTIONS 331), (anon_sym_print, ACTIONS 333),
    (anon_sym_comptime, ACTIONS 335), (anon_sym_assert, ACTIONS 23),
    (anon_sym___comptime_assert, ACTIONS 25), (anon_sym_return, ACTIONS 27),
    (anon_sym_del, ACTIONS 29), (anon_sym_raise, ACTIONS 31), (anon_sym_pass, ACTIONS 33),
    (anon_sym_break, ACTIONS 35), (anon_sym_continue, ACTIONS 37), (anon_sym_match, ACTIONS 337),
    (anon_sym_async, ACTIONS 339), (anon_sym_def, ACTIONS 341), (anon_sym_LBRACK, ACTIONS 343),
    (anon_sym_LBRACE, ACTIONS 61), (anon_sym_STAR_STAR, ACTIONS 345),
    (anon_sym_global, ACTIONS 63), (anon_sym_nonlocal, ACTIONS 65), (anon_sym_exec, ACTIONS 347),
    (anon_sym_type, ACTIONS 349), (anon_sym_mut, ACTIONS 339), (anon_sym_out, ACTIONS 339),
    (anon_sym_DASH, ACTIONS 79), (anon_sym_PLUS, ACTIONS 79), (anon_sym_ref, ACTIONS 81),
    (anon_sym_var, ACTIONS 81), (anon_sym_not, ACTIONS 83), (anon_sym_TILDE, ACTIONS 79),
    (anon_sym_lambda, ACTIONS 85), (anon_sym_yield, ACTIONS 87), (sym_ellipsis, ACTIONS 89),
    (anon_sym___mlir_type, ACTIONS 91), (sym_integer, ACTIONS 93), (sym_float, ACTIONS 89),
    (anon_sym_await, ACTIONS 351), (sym_true, ACTIONS 93), (sym_false, ACTIONS 93),
    (sym_none, ACTIONS 93), (sym_comment, ACTIONS 3), (sym_line_continuation, ACTIONS 3),
    (sym__newline, ACTIONS 1213), (sym__indent, ACTIONS 1215), (sym_string_start, ACTIONS 97)]"

definition parse_table_1145 :: "(nat \<times> nat) list" where "parse_table_1145 = [
    (sym__simple_statements, STATE 4924), (sym_import_statement, STATE 12239),
    (sym_future_import_statement, STATE 12239), (sym_import_from_statement, STATE 12239),
    (sym_print_statement, STATE 12239), (sym_assert_statement, STATE 12239),
    (sym_comptime_assert_statement, STATE 12239), (sym_expression_statement, STATE 12239),
    (sym_tuple_expression, STATE 12425), (sym_named_expression, STATE 7969),
    (sym__named_expression_lhs, STATE 12752), (sym_return_statement, STATE 12239),
    (sym_delete_statement, STATE 12239), (sym_raise_statement, STATE 12239),
    (sym_pass_statement, STATE 12239), (sym_break_statement, STATE 12239),
    (sym_continue_statement, STATE 12239), (sym_global_statement, STATE 12239),
    (sym_nonlocal_statement, STATE 12239), (sym_exec_statement, STATE 12239),
    (sym_type_alias_statement, STATE 12239), (sym_parameterized_alias_statement, STATE 12239),
    (sym_pattern, STATE 8086), (sym_tuple_pattern, STATE 8101), (sym_list_pattern, STATE 8101),
    (sym_list_splat_pattern, STATE 6795), (sym_as_pattern, STATE 7969),
    (sym_expression, STATE 9623), (sym_primary_expression, STATE 7326),
    (sym_comptime_expression, STATE 7017), (sym_transfer_expression, STATE 7017),
    (sym_not_operator, STATE 7969), (sym_boolean_operator, STATE 7969),
    (sym_binary_operator, STATE 7017), (sym_unary_operator, STATE 7017),
    (sym_comparison_operator, STATE 7969), (sym_lambda, STATE 7969),
    (sym_assignment, STATE 12425), (sym_augmented_assignment, STATE 12425),
    (sym_pattern_list, STATE 8578), (sym_yield, STATE 12425), (sym_attribute, STATE 6796),
    (sym_subscript, STATE 6797), (sym_call, STATE 6768), (sym_type, STATE 10130),
    (sym_called_type, STATE 9093), (sym_function_type, STATE 9093), (sym_splat_type, STATE 9093),
    (sym_generic_type, STATE 8287), (sym_union_type, STATE 9093),
    (sym_intersection_type, STATE 9093), (sym__intersection_operand, STATE 12294),
    (sym_constrained_type, STATE 9093), (sym_member_type, STATE 8165),
    (sym_mlir_type, STATE 7017), (sym_list, STATE 7017), (sym_set, STATE 7017),
    (sym_tuple, STATE 7017), (sym_dictionary, STATE 7017), (sym_struct_literal, STATE 7017),
    (sym_list_comprehension, STATE 7017), (sym_dictionary_comprehension, STATE 7017),
    (sym_set_comprehension, STATE 7017), (sym_generator_expression, STATE 7017),
    (sym_parenthesized_expression, STATE 7017), (sym_conditional_expression, STATE 7969),
    (sym_concatenated_string, STATE 7017), (sym_string, STATE 6729), (sym_await, STATE 7017),
    (sym_identifier, ACTIONS 327), (anon_sym_import, ACTIONS 11), (anon_sym_from, ACTIONS 13),
    (anon_sym_LPAREN, ACTIONS 329), (anon_sym_STAR, ACTIONS 331), (anon_sym_print, ACTIONS 333),
    (anon_sym_comptime, ACTIONS 335), (anon_sym_assert, ACTIONS 23),
    (anon_sym___comptime_assert, ACTIONS 25), (anon_sym_return, ACTIONS 27),
    (anon_sym_del, ACTIONS 29), (anon_sym_raise, ACTIONS 31), (anon_sym_pass, ACTIONS 33),
    (anon_sym_break, ACTIONS 35), (anon_sym_continue, ACTIONS 37), (anon_sym_match, ACTIONS 337),
    (anon_sym_async, ACTIONS 339), (anon_sym_def, ACTIONS 341), (anon_sym_LBRACK, ACTIONS 343),
    (anon_sym_LBRACE, ACTIONS 61), (anon_sym_STAR_STAR, ACTIONS 345),
    (anon_sym_global, ACTIONS 63), (anon_sym_nonlocal, ACTIONS 65), (anon_sym_exec, ACTIONS 347),
    (anon_sym_type, ACTIONS 349), (anon_sym_mut, ACTIONS 339), (anon_sym_out, ACTIONS 339),
    (anon_sym_DASH, ACTIONS 79), (anon_sym_PLUS, ACTIONS 79), (anon_sym_ref, ACTIONS 81),
    (anon_sym_var, ACTIONS 81), (anon_sym_not, ACTIONS 83), (anon_sym_TILDE, ACTIONS 79),
    (anon_sym_lambda, ACTIONS 85), (anon_sym_yield, ACTIONS 87), (sym_ellipsis, ACTIONS 89),
    (anon_sym___mlir_type, ACTIONS 91), (sym_integer, ACTIONS 93), (sym_float, ACTIONS 89),
    (anon_sym_await, ACTIONS 351), (sym_true, ACTIONS 93), (sym_false, ACTIONS 93),
    (sym_none, ACTIONS 93), (sym_comment, ACTIONS 3), (sym_line_continuation, ACTIONS 3),
    (sym__newline, ACTIONS 1217), (sym__indent, ACTIONS 1219), (sym_string_start, ACTIONS 97)]"

definition parse_table_1146 :: "(nat \<times> nat) list" where "parse_table_1146 = [
    (sym__simple_statements, STATE 5857), (sym_import_statement, STATE 11814),
    (sym_future_import_statement, STATE 11814), (sym_import_from_statement, STATE 11814),
    (sym_print_statement, STATE 11814), (sym_assert_statement, STATE 11814),
    (sym_comptime_assert_statement, STATE 11814), (sym_expression_statement, STATE 11814),
    (sym_tuple_expression, STATE 12425), (sym_named_expression, STATE 7969),
    (sym__named_expression_lhs, STATE 12752), (sym_return_statement, STATE 11814),
    (sym_delete_statement, STATE 11814), (sym_raise_statement, STATE 11814),
    (sym_pass_statement, STATE 11814), (sym_break_statement, STATE 11814),
    (sym_continue_statement, STATE 11814), (sym_global_statement, STATE 11814),
    (sym_nonlocal_statement, STATE 11814), (sym_exec_statement, STATE 11814),
    (sym_type_alias_statement, STATE 11814), (sym_parameterized_alias_statement, STATE 11814),
    (sym_pattern, STATE 8086), (sym_tuple_pattern, STATE 8101), (sym_list_pattern, STATE 8101),
    (sym_list_splat_pattern, STATE 6795), (sym_as_pattern, STATE 7969),
    (sym_expression, STATE 9623), (sym_primary_expression, STATE 7326),
    (sym_comptime_expression, STATE 7017), (sym_transfer_expression, STATE 7017),
    (sym_not_operator, STATE 7969), (sym_boolean_operator, STATE 7969),
    (sym_binary_operator, STATE 7017), (sym_unary_operator, STATE 7017),
    (sym_comparison_operator, STATE 7969), (sym_lambda, STATE 7969),
    (sym_assignment, STATE 12425), (sym_augmented_assignment, STATE 12425),
    (sym_pattern_list, STATE 8578), (sym_yield, STATE 12425), (sym_attribute, STATE 6796),
    (sym_subscript, STATE 6797), (sym_call, STATE 6768), (sym_type, STATE 10130),
    (sym_called_type, STATE 9093), (sym_function_type, STATE 9093), (sym_splat_type, STATE 9093),
    (sym_generic_type, STATE 8287), (sym_union_type, STATE 9093),
    (sym_intersection_type, STATE 9093), (sym__intersection_operand, STATE 12294),
    (sym_constrained_type, STATE 9093), (sym_member_type, STATE 8165),
    (sym_mlir_type, STATE 7017), (sym_list, STATE 7017), (sym_set, STATE 7017),
    (sym_tuple, STATE 7017), (sym_dictionary, STATE 7017), (sym_struct_literal, STATE 7017),
    (sym_list_comprehension, STATE 7017), (sym_dictionary_comprehension, STATE 7017),
    (sym_set_comprehension, STATE 7017), (sym_generator_expression, STATE 7017),
    (sym_parenthesized_expression, STATE 7017), (sym_conditional_expression, STATE 7969),
    (sym_concatenated_string, STATE 7017), (sym_string, STATE 6729), (sym_await, STATE 7017),
    (sym_identifier, ACTIONS 327), (anon_sym_import, ACTIONS 11), (anon_sym_from, ACTIONS 13),
    (anon_sym_LPAREN, ACTIONS 329), (anon_sym_STAR, ACTIONS 331), (anon_sym_print, ACTIONS 333),
    (anon_sym_comptime, ACTIONS 335), (anon_sym_assert, ACTIONS 23),
    (anon_sym___comptime_assert, ACTIONS 25), (anon_sym_return, ACTIONS 27),
    (anon_sym_del, ACTIONS 29), (anon_sym_raise, ACTIONS 31), (anon_sym_pass, ACTIONS 33),
    (anon_sym_break, ACTIONS 35), (anon_sym_continue, ACTIONS 37), (anon_sym_match, ACTIONS 337),
    (anon_sym_async, ACTIONS 339), (anon_sym_def, ACTIONS 341), (anon_sym_LBRACK, ACTIONS 343),
    (anon_sym_LBRACE, ACTIONS 61), (anon_sym_STAR_STAR, ACTIONS 345),
    (anon_sym_global, ACTIONS 63), (anon_sym_nonlocal, ACTIONS 65), (anon_sym_exec, ACTIONS 347),
    (anon_sym_type, ACTIONS 349), (anon_sym_mut, ACTIONS 339), (anon_sym_out, ACTIONS 339),
    (anon_sym_DASH, ACTIONS 79), (anon_sym_PLUS, ACTIONS 79), (anon_sym_ref, ACTIONS 81),
    (anon_sym_var, ACTIONS 81), (anon_sym_not, ACTIONS 83), (anon_sym_TILDE, ACTIONS 79),
    (anon_sym_lambda, ACTIONS 85), (anon_sym_yield, ACTIONS 87), (sym_ellipsis, ACTIONS 89),
    (anon_sym___mlir_type, ACTIONS 91), (sym_integer, ACTIONS 93), (sym_float, ACTIONS 89),
    (anon_sym_await, ACTIONS 351), (sym_true, ACTIONS 93), (sym_false, ACTIONS 93),
    (sym_none, ACTIONS 93), (sym_comment, ACTIONS 3), (sym_line_continuation, ACTIONS 3),
    (sym__newline, ACTIONS 1221), (sym__indent, ACTIONS 1223), (sym_string_start, ACTIONS 97)]"

definition parse_table_1147 :: "(nat \<times> nat) list" where "parse_table_1147 = [
    (sym__simple_statements, STATE 5859), (sym_import_statement, STATE 11814),
    (sym_future_import_statement, STATE 11814), (sym_import_from_statement, STATE 11814),
    (sym_print_statement, STATE 11814), (sym_assert_statement, STATE 11814),
    (sym_comptime_assert_statement, STATE 11814), (sym_expression_statement, STATE 11814),
    (sym_tuple_expression, STATE 12425), (sym_named_expression, STATE 7969),
    (sym__named_expression_lhs, STATE 12752), (sym_return_statement, STATE 11814),
    (sym_delete_statement, STATE 11814), (sym_raise_statement, STATE 11814),
    (sym_pass_statement, STATE 11814), (sym_break_statement, STATE 11814),
    (sym_continue_statement, STATE 11814), (sym_global_statement, STATE 11814),
    (sym_nonlocal_statement, STATE 11814), (sym_exec_statement, STATE 11814),
    (sym_type_alias_statement, STATE 11814), (sym_parameterized_alias_statement, STATE 11814),
    (sym_pattern, STATE 8086), (sym_tuple_pattern, STATE 8101), (sym_list_pattern, STATE 8101),
    (sym_list_splat_pattern, STATE 6795), (sym_as_pattern, STATE 7969),
    (sym_expression, STATE 9623), (sym_primary_expression, STATE 7326),
    (sym_comptime_expression, STATE 7017), (sym_transfer_expression, STATE 7017),
    (sym_not_operator, STATE 7969), (sym_boolean_operator, STATE 7969),
    (sym_binary_operator, STATE 7017), (sym_unary_operator, STATE 7017),
    (sym_comparison_operator, STATE 7969), (sym_lambda, STATE 7969),
    (sym_assignment, STATE 12425), (sym_augmented_assignment, STATE 12425),
    (sym_pattern_list, STATE 8578), (sym_yield, STATE 12425), (sym_attribute, STATE 6796),
    (sym_subscript, STATE 6797), (sym_call, STATE 6768), (sym_type, STATE 10130),
    (sym_called_type, STATE 9093), (sym_function_type, STATE 9093), (sym_splat_type, STATE 9093),
    (sym_generic_type, STATE 8287), (sym_union_type, STATE 9093),
    (sym_intersection_type, STATE 9093), (sym__intersection_operand, STATE 12294),
    (sym_constrained_type, STATE 9093), (sym_member_type, STATE 8165),
    (sym_mlir_type, STATE 7017), (sym_list, STATE 7017), (sym_set, STATE 7017),
    (sym_tuple, STATE 7017), (sym_dictionary, STATE 7017), (sym_struct_literal, STATE 7017),
    (sym_list_comprehension, STATE 7017), (sym_dictionary_comprehension, STATE 7017),
    (sym_set_comprehension, STATE 7017), (sym_generator_expression, STATE 7017),
    (sym_parenthesized_expression, STATE 7017), (sym_conditional_expression, STATE 7969),
    (sym_concatenated_string, STATE 7017), (sym_string, STATE 6729), (sym_await, STATE 7017),
    (sym_identifier, ACTIONS 327), (anon_sym_import, ACTIONS 11), (anon_sym_from, ACTIONS 13),
    (anon_sym_LPAREN, ACTIONS 329), (anon_sym_STAR, ACTIONS 331), (anon_sym_print, ACTIONS 333),
    (anon_sym_comptime, ACTIONS 335), (anon_sym_assert, ACTIONS 23),
    (anon_sym___comptime_assert, ACTIONS 25), (anon_sym_return, ACTIONS 27),
    (anon_sym_del, ACTIONS 29), (anon_sym_raise, ACTIONS 31), (anon_sym_pass, ACTIONS 33),
    (anon_sym_break, ACTIONS 35), (anon_sym_continue, ACTIONS 37), (anon_sym_match, ACTIONS 337),
    (anon_sym_async, ACTIONS 339), (anon_sym_def, ACTIONS 341), (anon_sym_LBRACK, ACTIONS 343),
    (anon_sym_LBRACE, ACTIONS 61), (anon_sym_STAR_STAR, ACTIONS 345),
    (anon_sym_global, ACTIONS 63), (anon_sym_nonlocal, ACTIONS 65), (anon_sym_exec, ACTIONS 347),
    (anon_sym_type, ACTIONS 349), (anon_sym_mut, ACTIONS 339), (anon_sym_out, ACTIONS 339),
    (anon_sym_DASH, ACTIONS 79), (anon_sym_PLUS, ACTIONS 79), (anon_sym_ref, ACTIONS 81),
    (anon_sym_var, ACTIONS 81), (anon_sym_not, ACTIONS 83), (anon_sym_TILDE, ACTIONS 79),
    (anon_sym_lambda, ACTIONS 85), (anon_sym_yield, ACTIONS 87), (sym_ellipsis, ACTIONS 89),
    (anon_sym___mlir_type, ACTIONS 91), (sym_integer, ACTIONS 93), (sym_float, ACTIONS 89),
    (anon_sym_await, ACTIONS 351), (sym_true, ACTIONS 93), (sym_false, ACTIONS 93),
    (sym_none, ACTIONS 93), (sym_comment, ACTIONS 3), (sym_line_continuation, ACTIONS 3),
    (sym__newline, ACTIONS 1225), (sym__indent, ACTIONS 1227), (sym_string_start, ACTIONS 97)]"

definition parse_table_1148 :: "(nat \<times> nat) list" where "parse_table_1148 = [
    (sym__simple_statements, STATE 5159), (sym_import_statement, STATE 12239),
    (sym_future_import_statement, STATE 12239), (sym_import_from_statement, STATE 12239),
    (sym_print_statement, STATE 12239), (sym_assert_statement, STATE 12239),
    (sym_comptime_assert_statement, STATE 12239), (sym_expression_statement, STATE 12239),
    (sym_tuple_expression, STATE 12425), (sym_named_expression, STATE 7969),
    (sym__named_expression_lhs, STATE 12752), (sym_return_statement, STATE 12239),
    (sym_delete_statement, STATE 12239), (sym_raise_statement, STATE 12239),
    (sym_pass_statement, STATE 12239), (sym_break_statement, STATE 12239),
    (sym_continue_statement, STATE 12239), (sym_global_statement, STATE 12239),
    (sym_nonlocal_statement, STATE 12239), (sym_exec_statement, STATE 12239),
    (sym_type_alias_statement, STATE 12239), (sym_parameterized_alias_statement, STATE 12239),
    (sym_pattern, STATE 8086), (sym_tuple_pattern, STATE 8101), (sym_list_pattern, STATE 8101),
    (sym_list_splat_pattern, STATE 6795), (sym_as_pattern, STATE 7969),
    (sym_expression, STATE 9623), (sym_primary_expression, STATE 7326),
    (sym_comptime_expression, STATE 7017), (sym_transfer_expression, STATE 7017),
    (sym_not_operator, STATE 7969), (sym_boolean_operator, STATE 7969),
    (sym_binary_operator, STATE 7017), (sym_unary_operator, STATE 7017),
    (sym_comparison_operator, STATE 7969), (sym_lambda, STATE 7969),
    (sym_assignment, STATE 12425), (sym_augmented_assignment, STATE 12425),
    (sym_pattern_list, STATE 8578), (sym_yield, STATE 12425), (sym_attribute, STATE 6796),
    (sym_subscript, STATE 6797), (sym_call, STATE 6768), (sym_type, STATE 10130),
    (sym_called_type, STATE 9093), (sym_function_type, STATE 9093), (sym_splat_type, STATE 9093),
    (sym_generic_type, STATE 8287), (sym_union_type, STATE 9093),
    (sym_intersection_type, STATE 9093), (sym__intersection_operand, STATE 12294),
    (sym_constrained_type, STATE 9093), (sym_member_type, STATE 8165),
    (sym_mlir_type, STATE 7017), (sym_list, STATE 7017), (sym_set, STATE 7017),
    (sym_tuple, STATE 7017), (sym_dictionary, STATE 7017), (sym_struct_literal, STATE 7017),
    (sym_list_comprehension, STATE 7017), (sym_dictionary_comprehension, STATE 7017),
    (sym_set_comprehension, STATE 7017), (sym_generator_expression, STATE 7017),
    (sym_parenthesized_expression, STATE 7017), (sym_conditional_expression, STATE 7969),
    (sym_concatenated_string, STATE 7017), (sym_string, STATE 6729), (sym_await, STATE 7017),
    (sym_identifier, ACTIONS 327), (anon_sym_import, ACTIONS 11), (anon_sym_from, ACTIONS 13),
    (anon_sym_LPAREN, ACTIONS 329), (anon_sym_STAR, ACTIONS 331), (anon_sym_print, ACTIONS 333),
    (anon_sym_comptime, ACTIONS 335), (anon_sym_assert, ACTIONS 23),
    (anon_sym___comptime_assert, ACTIONS 25), (anon_sym_return, ACTIONS 27),
    (anon_sym_del, ACTIONS 29), (anon_sym_raise, ACTIONS 31), (anon_sym_pass, ACTIONS 33),
    (anon_sym_break, ACTIONS 35), (anon_sym_continue, ACTIONS 37), (anon_sym_match, ACTIONS 337),
    (anon_sym_async, ACTIONS 339), (anon_sym_def, ACTIONS 341), (anon_sym_LBRACK, ACTIONS 343),
    (anon_sym_LBRACE, ACTIONS 61), (anon_sym_STAR_STAR, ACTIONS 345),
    (anon_sym_global, ACTIONS 63), (anon_sym_nonlocal, ACTIONS 65), (anon_sym_exec, ACTIONS 347),
    (anon_sym_type, ACTIONS 349), (anon_sym_mut, ACTIONS 339), (anon_sym_out, ACTIONS 339),
    (anon_sym_DASH, ACTIONS 79), (anon_sym_PLUS, ACTIONS 79), (anon_sym_ref, ACTIONS 81),
    (anon_sym_var, ACTIONS 81), (anon_sym_not, ACTIONS 83), (anon_sym_TILDE, ACTIONS 79),
    (anon_sym_lambda, ACTIONS 85), (anon_sym_yield, ACTIONS 87), (sym_ellipsis, ACTIONS 89),
    (anon_sym___mlir_type, ACTIONS 91), (sym_integer, ACTIONS 93), (sym_float, ACTIONS 89),
    (anon_sym_await, ACTIONS 351), (sym_true, ACTIONS 93), (sym_false, ACTIONS 93),
    (sym_none, ACTIONS 93), (sym_comment, ACTIONS 3), (sym_line_continuation, ACTIONS 3),
    (sym__newline, ACTIONS 1229), (sym__indent, ACTIONS 1231), (sym_string_start, ACTIONS 97)]"

definition parse_table_1149 :: "(nat \<times> nat) list" where "parse_table_1149 = [
    (sym__simple_statements, STATE 5865), (sym_import_statement, STATE 11814),
    (sym_future_import_statement, STATE 11814), (sym_import_from_statement, STATE 11814),
    (sym_print_statement, STATE 11814), (sym_assert_statement, STATE 11814),
    (sym_comptime_assert_statement, STATE 11814), (sym_expression_statement, STATE 11814),
    (sym_tuple_expression, STATE 12425), (sym_named_expression, STATE 7969),
    (sym__named_expression_lhs, STATE 12752), (sym_return_statement, STATE 11814),
    (sym_delete_statement, STATE 11814), (sym_raise_statement, STATE 11814),
    (sym_pass_statement, STATE 11814), (sym_break_statement, STATE 11814),
    (sym_continue_statement, STATE 11814), (sym_global_statement, STATE 11814),
    (sym_nonlocal_statement, STATE 11814), (sym_exec_statement, STATE 11814),
    (sym_type_alias_statement, STATE 11814), (sym_parameterized_alias_statement, STATE 11814),
    (sym_pattern, STATE 8086), (sym_tuple_pattern, STATE 8101), (sym_list_pattern, STATE 8101),
    (sym_list_splat_pattern, STATE 6795), (sym_as_pattern, STATE 7969),
    (sym_expression, STATE 9623), (sym_primary_expression, STATE 7326),
    (sym_comptime_expression, STATE 7017), (sym_transfer_expression, STATE 7017),
    (sym_not_operator, STATE 7969), (sym_boolean_operator, STATE 7969),
    (sym_binary_operator, STATE 7017), (sym_unary_operator, STATE 7017),
    (sym_comparison_operator, STATE 7969), (sym_lambda, STATE 7969),
    (sym_assignment, STATE 12425), (sym_augmented_assignment, STATE 12425),
    (sym_pattern_list, STATE 8578), (sym_yield, STATE 12425), (sym_attribute, STATE 6796),
    (sym_subscript, STATE 6797), (sym_call, STATE 6768), (sym_type, STATE 10130),
    (sym_called_type, STATE 9093), (sym_function_type, STATE 9093), (sym_splat_type, STATE 9093),
    (sym_generic_type, STATE 8287), (sym_union_type, STATE 9093),
    (sym_intersection_type, STATE 9093), (sym__intersection_operand, STATE 12294),
    (sym_constrained_type, STATE 9093), (sym_member_type, STATE 8165),
    (sym_mlir_type, STATE 7017), (sym_list, STATE 7017), (sym_set, STATE 7017),
    (sym_tuple, STATE 7017), (sym_dictionary, STATE 7017), (sym_struct_literal, STATE 7017),
    (sym_list_comprehension, STATE 7017), (sym_dictionary_comprehension, STATE 7017),
    (sym_set_comprehension, STATE 7017), (sym_generator_expression, STATE 7017),
    (sym_parenthesized_expression, STATE 7017), (sym_conditional_expression, STATE 7969),
    (sym_concatenated_string, STATE 7017), (sym_string, STATE 6729), (sym_await, STATE 7017),
    (sym_identifier, ACTIONS 327), (anon_sym_import, ACTIONS 11), (anon_sym_from, ACTIONS 13),
    (anon_sym_LPAREN, ACTIONS 329), (anon_sym_STAR, ACTIONS 331), (anon_sym_print, ACTIONS 333),
    (anon_sym_comptime, ACTIONS 335), (anon_sym_assert, ACTIONS 23),
    (anon_sym___comptime_assert, ACTIONS 25), (anon_sym_return, ACTIONS 27),
    (anon_sym_del, ACTIONS 29), (anon_sym_raise, ACTIONS 31), (anon_sym_pass, ACTIONS 33),
    (anon_sym_break, ACTIONS 35), (anon_sym_continue, ACTIONS 37), (anon_sym_match, ACTIONS 337),
    (anon_sym_async, ACTIONS 339), (anon_sym_def, ACTIONS 341), (anon_sym_LBRACK, ACTIONS 343),
    (anon_sym_LBRACE, ACTIONS 61), (anon_sym_STAR_STAR, ACTIONS 345),
    (anon_sym_global, ACTIONS 63), (anon_sym_nonlocal, ACTIONS 65), (anon_sym_exec, ACTIONS 347),
    (anon_sym_type, ACTIONS 349), (anon_sym_mut, ACTIONS 339), (anon_sym_out, ACTIONS 339),
    (anon_sym_DASH, ACTIONS 79), (anon_sym_PLUS, ACTIONS 79), (anon_sym_ref, ACTIONS 81),
    (anon_sym_var, ACTIONS 81), (anon_sym_not, ACTIONS 83), (anon_sym_TILDE, ACTIONS 79),
    (anon_sym_lambda, ACTIONS 85), (anon_sym_yield, ACTIONS 87), (sym_ellipsis, ACTIONS 89),
    (anon_sym___mlir_type, ACTIONS 91), (sym_integer, ACTIONS 93), (sym_float, ACTIONS 89),
    (anon_sym_await, ACTIONS 351), (sym_true, ACTIONS 93), (sym_false, ACTIONS 93),
    (sym_none, ACTIONS 93), (sym_comment, ACTIONS 3), (sym_line_continuation, ACTIONS 3),
    (sym__newline, ACTIONS 1233), (sym__indent, ACTIONS 1235), (sym_string_start, ACTIONS 97)]"

definition parse_table_1150 :: "(nat \<times> nat) list" where "parse_table_1150 = [
    (sym__simple_statements, STATE 4347), (sym_import_statement, STATE 11814),
    (sym_future_import_statement, STATE 11814), (sym_import_from_statement, STATE 11814),
    (sym_print_statement, STATE 11814), (sym_assert_statement, STATE 11814),
    (sym_comptime_assert_statement, STATE 11814), (sym_expression_statement, STATE 11814),
    (sym_tuple_expression, STATE 12425), (sym_named_expression, STATE 7969),
    (sym__named_expression_lhs, STATE 12752), (sym_return_statement, STATE 11814),
    (sym_delete_statement, STATE 11814), (sym_raise_statement, STATE 11814),
    (sym_pass_statement, STATE 11814), (sym_break_statement, STATE 11814),
    (sym_continue_statement, STATE 11814), (sym_global_statement, STATE 11814),
    (sym_nonlocal_statement, STATE 11814), (sym_exec_statement, STATE 11814),
    (sym_type_alias_statement, STATE 11814), (sym_parameterized_alias_statement, STATE 11814),
    (sym_pattern, STATE 8086), (sym_tuple_pattern, STATE 8101), (sym_list_pattern, STATE 8101),
    (sym_list_splat_pattern, STATE 6795), (sym_as_pattern, STATE 7969),
    (sym_expression, STATE 9623), (sym_primary_expression, STATE 7326),
    (sym_comptime_expression, STATE 7017), (sym_transfer_expression, STATE 7017),
    (sym_not_operator, STATE 7969), (sym_boolean_operator, STATE 7969),
    (sym_binary_operator, STATE 7017), (sym_unary_operator, STATE 7017),
    (sym_comparison_operator, STATE 7969), (sym_lambda, STATE 7969),
    (sym_assignment, STATE 12425), (sym_augmented_assignment, STATE 12425),
    (sym_pattern_list, STATE 8578), (sym_yield, STATE 12425), (sym_attribute, STATE 6796),
    (sym_subscript, STATE 6797), (sym_call, STATE 6768), (sym_type, STATE 10130),
    (sym_called_type, STATE 9093), (sym_function_type, STATE 9093), (sym_splat_type, STATE 9093),
    (sym_generic_type, STATE 8287), (sym_union_type, STATE 9093),
    (sym_intersection_type, STATE 9093), (sym__intersection_operand, STATE 12294),
    (sym_constrained_type, STATE 9093), (sym_member_type, STATE 8165),
    (sym_mlir_type, STATE 7017), (sym_list, STATE 7017), (sym_set, STATE 7017),
    (sym_tuple, STATE 7017), (sym_dictionary, STATE 7017), (sym_struct_literal, STATE 7017),
    (sym_list_comprehension, STATE 7017), (sym_dictionary_comprehension, STATE 7017),
    (sym_set_comprehension, STATE 7017), (sym_generator_expression, STATE 7017),
    (sym_parenthesized_expression, STATE 7017), (sym_conditional_expression, STATE 7969),
    (sym_concatenated_string, STATE 7017), (sym_string, STATE 6729), (sym_await, STATE 7017),
    (sym_identifier, ACTIONS 327), (anon_sym_import, ACTIONS 11), (anon_sym_from, ACTIONS 13),
    (anon_sym_LPAREN, ACTIONS 329), (anon_sym_STAR, ACTIONS 331), (anon_sym_print, ACTIONS 333),
    (anon_sym_comptime, ACTIONS 335), (anon_sym_assert, ACTIONS 23),
    (anon_sym___comptime_assert, ACTIONS 25), (anon_sym_return, ACTIONS 27),
    (anon_sym_del, ACTIONS 29), (anon_sym_raise, ACTIONS 31), (anon_sym_pass, ACTIONS 33),
    (anon_sym_break, ACTIONS 35), (anon_sym_continue, ACTIONS 37), (anon_sym_match, ACTIONS 337),
    (anon_sym_async, ACTIONS 339), (anon_sym_def, ACTIONS 341), (anon_sym_LBRACK, ACTIONS 343),
    (anon_sym_LBRACE, ACTIONS 61), (anon_sym_STAR_STAR, ACTIONS 345),
    (anon_sym_global, ACTIONS 63), (anon_sym_nonlocal, ACTIONS 65), (anon_sym_exec, ACTIONS 347),
    (anon_sym_type, ACTIONS 349), (anon_sym_mut, ACTIONS 339), (anon_sym_out, ACTIONS 339),
    (anon_sym_DASH, ACTIONS 79), (anon_sym_PLUS, ACTIONS 79), (anon_sym_ref, ACTIONS 81),
    (anon_sym_var, ACTIONS 81), (anon_sym_not, ACTIONS 83), (anon_sym_TILDE, ACTIONS 79),
    (anon_sym_lambda, ACTIONS 85), (anon_sym_yield, ACTIONS 87), (sym_ellipsis, ACTIONS 89),
    (anon_sym___mlir_type, ACTIONS 91), (sym_integer, ACTIONS 93), (sym_float, ACTIONS 89),
    (anon_sym_await, ACTIONS 351), (sym_true, ACTIONS 93), (sym_false, ACTIONS 93),
    (sym_none, ACTIONS 93), (sym_comment, ACTIONS 3), (sym_line_continuation, ACTIONS 3),
    (sym__newline, ACTIONS 1237), (sym__indent, ACTIONS 1239), (sym_string_start, ACTIONS 97)]"

definition parse_table_1151 :: "(nat \<times> nat) list" where "parse_table_1151 = [
    (sym__simple_statements, STATE 4466), (sym_import_statement, STATE 12239),
    (sym_future_import_statement, STATE 12239), (sym_import_from_statement, STATE 12239),
    (sym_print_statement, STATE 12239), (sym_assert_statement, STATE 12239),
    (sym_comptime_assert_statement, STATE 12239), (sym_expression_statement, STATE 12239),
    (sym_tuple_expression, STATE 12425), (sym_named_expression, STATE 7969),
    (sym__named_expression_lhs, STATE 12752), (sym_return_statement, STATE 12239),
    (sym_delete_statement, STATE 12239), (sym_raise_statement, STATE 12239),
    (sym_pass_statement, STATE 12239), (sym_break_statement, STATE 12239),
    (sym_continue_statement, STATE 12239), (sym_global_statement, STATE 12239),
    (sym_nonlocal_statement, STATE 12239), (sym_exec_statement, STATE 12239),
    (sym_type_alias_statement, STATE 12239), (sym_parameterized_alias_statement, STATE 12239),
    (sym_pattern, STATE 8086), (sym_tuple_pattern, STATE 8101), (sym_list_pattern, STATE 8101),
    (sym_list_splat_pattern, STATE 6795), (sym_as_pattern, STATE 7969),
    (sym_expression, STATE 9623), (sym_primary_expression, STATE 7326),
    (sym_comptime_expression, STATE 7017), (sym_transfer_expression, STATE 7017),
    (sym_not_operator, STATE 7969), (sym_boolean_operator, STATE 7969),
    (sym_binary_operator, STATE 7017), (sym_unary_operator, STATE 7017),
    (sym_comparison_operator, STATE 7969), (sym_lambda, STATE 7969),
    (sym_assignment, STATE 12425), (sym_augmented_assignment, STATE 12425),
    (sym_pattern_list, STATE 8578), (sym_yield, STATE 12425), (sym_attribute, STATE 6796),
    (sym_subscript, STATE 6797), (sym_call, STATE 6768), (sym_type, STATE 10130),
    (sym_called_type, STATE 9093), (sym_function_type, STATE 9093), (sym_splat_type, STATE 9093),
    (sym_generic_type, STATE 8287), (sym_union_type, STATE 9093),
    (sym_intersection_type, STATE 9093), (sym__intersection_operand, STATE 12294),
    (sym_constrained_type, STATE 9093), (sym_member_type, STATE 8165),
    (sym_mlir_type, STATE 7017), (sym_list, STATE 7017), (sym_set, STATE 7017),
    (sym_tuple, STATE 7017), (sym_dictionary, STATE 7017), (sym_struct_literal, STATE 7017),
    (sym_list_comprehension, STATE 7017), (sym_dictionary_comprehension, STATE 7017),
    (sym_set_comprehension, STATE 7017), (sym_generator_expression, STATE 7017),
    (sym_parenthesized_expression, STATE 7017), (sym_conditional_expression, STATE 7969),
    (sym_concatenated_string, STATE 7017), (sym_string, STATE 6729), (sym_await, STATE 7017),
    (sym_identifier, ACTIONS 327), (anon_sym_import, ACTIONS 11), (anon_sym_from, ACTIONS 13),
    (anon_sym_LPAREN, ACTIONS 329), (anon_sym_STAR, ACTIONS 331), (anon_sym_print, ACTIONS 333),
    (anon_sym_comptime, ACTIONS 335), (anon_sym_assert, ACTIONS 23),
    (anon_sym___comptime_assert, ACTIONS 25), (anon_sym_return, ACTIONS 27),
    (anon_sym_del, ACTIONS 29), (anon_sym_raise, ACTIONS 31), (anon_sym_pass, ACTIONS 33),
    (anon_sym_break, ACTIONS 35), (anon_sym_continue, ACTIONS 37), (anon_sym_match, ACTIONS 337),
    (anon_sym_async, ACTIONS 339), (anon_sym_def, ACTIONS 341), (anon_sym_LBRACK, ACTIONS 343),
    (anon_sym_LBRACE, ACTIONS 61), (anon_sym_STAR_STAR, ACTIONS 345),
    (anon_sym_global, ACTIONS 63), (anon_sym_nonlocal, ACTIONS 65), (anon_sym_exec, ACTIONS 347),
    (anon_sym_type, ACTIONS 349), (anon_sym_mut, ACTIONS 339), (anon_sym_out, ACTIONS 339),
    (anon_sym_DASH, ACTIONS 79), (anon_sym_PLUS, ACTIONS 79), (anon_sym_ref, ACTIONS 81),
    (anon_sym_var, ACTIONS 81), (anon_sym_not, ACTIONS 83), (anon_sym_TILDE, ACTIONS 79),
    (anon_sym_lambda, ACTIONS 85), (anon_sym_yield, ACTIONS 87), (sym_ellipsis, ACTIONS 89),
    (anon_sym___mlir_type, ACTIONS 91), (sym_integer, ACTIONS 93), (sym_float, ACTIONS 89),
    (anon_sym_await, ACTIONS 351), (sym_true, ACTIONS 93), (sym_false, ACTIONS 93),
    (sym_none, ACTIONS 93), (sym_comment, ACTIONS 3), (sym_line_continuation, ACTIONS 3),
    (sym__newline, ACTIONS 1241), (sym__indent, ACTIONS 1243), (sym_string_start, ACTIONS 97)]"

definition parse_table_1152 :: "(nat \<times> nat) list" where "parse_table_1152 = [
    (sym__simple_statements, STATE 4351), (sym_import_statement, STATE 11814),
    (sym_future_import_statement, STATE 11814), (sym_import_from_statement, STATE 11814),
    (sym_print_statement, STATE 11814), (sym_assert_statement, STATE 11814),
    (sym_comptime_assert_statement, STATE 11814), (sym_expression_statement, STATE 11814),
    (sym_tuple_expression, STATE 12425), (sym_named_expression, STATE 7969),
    (sym__named_expression_lhs, STATE 12752), (sym_return_statement, STATE 11814),
    (sym_delete_statement, STATE 11814), (sym_raise_statement, STATE 11814),
    (sym_pass_statement, STATE 11814), (sym_break_statement, STATE 11814),
    (sym_continue_statement, STATE 11814), (sym_global_statement, STATE 11814),
    (sym_nonlocal_statement, STATE 11814), (sym_exec_statement, STATE 11814),
    (sym_type_alias_statement, STATE 11814), (sym_parameterized_alias_statement, STATE 11814),
    (sym_pattern, STATE 8086), (sym_tuple_pattern, STATE 8101), (sym_list_pattern, STATE 8101),
    (sym_list_splat_pattern, STATE 6795), (sym_as_pattern, STATE 7969),
    (sym_expression, STATE 9623), (sym_primary_expression, STATE 7326),
    (sym_comptime_expression, STATE 7017), (sym_transfer_expression, STATE 7017),
    (sym_not_operator, STATE 7969), (sym_boolean_operator, STATE 7969),
    (sym_binary_operator, STATE 7017), (sym_unary_operator, STATE 7017),
    (sym_comparison_operator, STATE 7969), (sym_lambda, STATE 7969),
    (sym_assignment, STATE 12425), (sym_augmented_assignment, STATE 12425),
    (sym_pattern_list, STATE 8578), (sym_yield, STATE 12425), (sym_attribute, STATE 6796),
    (sym_subscript, STATE 6797), (sym_call, STATE 6768), (sym_type, STATE 10130),
    (sym_called_type, STATE 9093), (sym_function_type, STATE 9093), (sym_splat_type, STATE 9093),
    (sym_generic_type, STATE 8287), (sym_union_type, STATE 9093),
    (sym_intersection_type, STATE 9093), (sym__intersection_operand, STATE 12294),
    (sym_constrained_type, STATE 9093), (sym_member_type, STATE 8165),
    (sym_mlir_type, STATE 7017), (sym_list, STATE 7017), (sym_set, STATE 7017),
    (sym_tuple, STATE 7017), (sym_dictionary, STATE 7017), (sym_struct_literal, STATE 7017),
    (sym_list_comprehension, STATE 7017), (sym_dictionary_comprehension, STATE 7017),
    (sym_set_comprehension, STATE 7017), (sym_generator_expression, STATE 7017),
    (sym_parenthesized_expression, STATE 7017), (sym_conditional_expression, STATE 7969),
    (sym_concatenated_string, STATE 7017), (sym_string, STATE 6729), (sym_await, STATE 7017),
    (sym_identifier, ACTIONS 327), (anon_sym_import, ACTIONS 11), (anon_sym_from, ACTIONS 13),
    (anon_sym_LPAREN, ACTIONS 329), (anon_sym_STAR, ACTIONS 331), (anon_sym_print, ACTIONS 333),
    (anon_sym_comptime, ACTIONS 335), (anon_sym_assert, ACTIONS 23),
    (anon_sym___comptime_assert, ACTIONS 25), (anon_sym_return, ACTIONS 27),
    (anon_sym_del, ACTIONS 29), (anon_sym_raise, ACTIONS 31), (anon_sym_pass, ACTIONS 33),
    (anon_sym_break, ACTIONS 35), (anon_sym_continue, ACTIONS 37), (anon_sym_match, ACTIONS 337),
    (anon_sym_async, ACTIONS 339), (anon_sym_def, ACTIONS 341), (anon_sym_LBRACK, ACTIONS 343),
    (anon_sym_LBRACE, ACTIONS 61), (anon_sym_STAR_STAR, ACTIONS 345),
    (anon_sym_global, ACTIONS 63), (anon_sym_nonlocal, ACTIONS 65), (anon_sym_exec, ACTIONS 347),
    (anon_sym_type, ACTIONS 349), (anon_sym_mut, ACTIONS 339), (anon_sym_out, ACTIONS 339),
    (anon_sym_DASH, ACTIONS 79), (anon_sym_PLUS, ACTIONS 79), (anon_sym_ref, ACTIONS 81),
    (anon_sym_var, ACTIONS 81), (anon_sym_not, ACTIONS 83), (anon_sym_TILDE, ACTIONS 79),
    (anon_sym_lambda, ACTIONS 85), (anon_sym_yield, ACTIONS 87), (sym_ellipsis, ACTIONS 89),
    (anon_sym___mlir_type, ACTIONS 91), (sym_integer, ACTIONS 93), (sym_float, ACTIONS 89),
    (anon_sym_await, ACTIONS 351), (sym_true, ACTIONS 93), (sym_false, ACTIONS 93),
    (sym_none, ACTIONS 93), (sym_comment, ACTIONS 3), (sym_line_continuation, ACTIONS 3),
    (sym__newline, ACTIONS 1245), (sym__indent, ACTIONS 1247), (sym_string_start, ACTIONS 97)]"

definition parse_table_1153 :: "(nat \<times> nat) list" where "parse_table_1153 = [
    (sym__simple_statements, STATE 4353), (sym_import_statement, STATE 11814),
    (sym_future_import_statement, STATE 11814), (sym_import_from_statement, STATE 11814),
    (sym_print_statement, STATE 11814), (sym_assert_statement, STATE 11814),
    (sym_comptime_assert_statement, STATE 11814), (sym_expression_statement, STATE 11814),
    (sym_tuple_expression, STATE 12425), (sym_named_expression, STATE 7969),
    (sym__named_expression_lhs, STATE 12752), (sym_return_statement, STATE 11814),
    (sym_delete_statement, STATE 11814), (sym_raise_statement, STATE 11814),
    (sym_pass_statement, STATE 11814), (sym_break_statement, STATE 11814),
    (sym_continue_statement, STATE 11814), (sym_global_statement, STATE 11814),
    (sym_nonlocal_statement, STATE 11814), (sym_exec_statement, STATE 11814),
    (sym_type_alias_statement, STATE 11814), (sym_parameterized_alias_statement, STATE 11814),
    (sym_pattern, STATE 8086), (sym_tuple_pattern, STATE 8101), (sym_list_pattern, STATE 8101),
    (sym_list_splat_pattern, STATE 6795), (sym_as_pattern, STATE 7969),
    (sym_expression, STATE 9623), (sym_primary_expression, STATE 7326),
    (sym_comptime_expression, STATE 7017), (sym_transfer_expression, STATE 7017),
    (sym_not_operator, STATE 7969), (sym_boolean_operator, STATE 7969),
    (sym_binary_operator, STATE 7017), (sym_unary_operator, STATE 7017),
    (sym_comparison_operator, STATE 7969), (sym_lambda, STATE 7969),
    (sym_assignment, STATE 12425), (sym_augmented_assignment, STATE 12425),
    (sym_pattern_list, STATE 8578), (sym_yield, STATE 12425), (sym_attribute, STATE 6796),
    (sym_subscript, STATE 6797), (sym_call, STATE 6768), (sym_type, STATE 10130),
    (sym_called_type, STATE 9093), (sym_function_type, STATE 9093), (sym_splat_type, STATE 9093),
    (sym_generic_type, STATE 8287), (sym_union_type, STATE 9093),
    (sym_intersection_type, STATE 9093), (sym__intersection_operand, STATE 12294),
    (sym_constrained_type, STATE 9093), (sym_member_type, STATE 8165),
    (sym_mlir_type, STATE 7017), (sym_list, STATE 7017), (sym_set, STATE 7017),
    (sym_tuple, STATE 7017), (sym_dictionary, STATE 7017), (sym_struct_literal, STATE 7017),
    (sym_list_comprehension, STATE 7017), (sym_dictionary_comprehension, STATE 7017),
    (sym_set_comprehension, STATE 7017), (sym_generator_expression, STATE 7017),
    (sym_parenthesized_expression, STATE 7017), (sym_conditional_expression, STATE 7969),
    (sym_concatenated_string, STATE 7017), (sym_string, STATE 6729), (sym_await, STATE 7017),
    (sym_identifier, ACTIONS 327), (anon_sym_import, ACTIONS 11), (anon_sym_from, ACTIONS 13),
    (anon_sym_LPAREN, ACTIONS 329), (anon_sym_STAR, ACTIONS 331), (anon_sym_print, ACTIONS 333),
    (anon_sym_comptime, ACTIONS 335), (anon_sym_assert, ACTIONS 23),
    (anon_sym___comptime_assert, ACTIONS 25), (anon_sym_return, ACTIONS 27),
    (anon_sym_del, ACTIONS 29), (anon_sym_raise, ACTIONS 31), (anon_sym_pass, ACTIONS 33),
    (anon_sym_break, ACTIONS 35), (anon_sym_continue, ACTIONS 37), (anon_sym_match, ACTIONS 337),
    (anon_sym_async, ACTIONS 339), (anon_sym_def, ACTIONS 341), (anon_sym_LBRACK, ACTIONS 343),
    (anon_sym_LBRACE, ACTIONS 61), (anon_sym_STAR_STAR, ACTIONS 345),
    (anon_sym_global, ACTIONS 63), (anon_sym_nonlocal, ACTIONS 65), (anon_sym_exec, ACTIONS 347),
    (anon_sym_type, ACTIONS 349), (anon_sym_mut, ACTIONS 339), (anon_sym_out, ACTIONS 339),
    (anon_sym_DASH, ACTIONS 79), (anon_sym_PLUS, ACTIONS 79), (anon_sym_ref, ACTIONS 81),
    (anon_sym_var, ACTIONS 81), (anon_sym_not, ACTIONS 83), (anon_sym_TILDE, ACTIONS 79),
    (anon_sym_lambda, ACTIONS 85), (anon_sym_yield, ACTIONS 87), (sym_ellipsis, ACTIONS 89),
    (anon_sym___mlir_type, ACTIONS 91), (sym_integer, ACTIONS 93), (sym_float, ACTIONS 89),
    (anon_sym_await, ACTIONS 351), (sym_true, ACTIONS 93), (sym_false, ACTIONS 93),
    (sym_none, ACTIONS 93), (sym_comment, ACTIONS 3), (sym_line_continuation, ACTIONS 3),
    (sym__newline, ACTIONS 1249), (sym__indent, ACTIONS 1251), (sym_string_start, ACTIONS 97)]"

definition parse_table_1154 :: "(nat \<times> nat) list" where "parse_table_1154 = [
    (sym__simple_statements, STATE 4661), (sym_import_statement, STATE 11814),
    (sym_future_import_statement, STATE 11814), (sym_import_from_statement, STATE 11814),
    (sym_print_statement, STATE 11814), (sym_assert_statement, STATE 11814),
    (sym_comptime_assert_statement, STATE 11814), (sym_expression_statement, STATE 11814),
    (sym_tuple_expression, STATE 12425), (sym_named_expression, STATE 7969),
    (sym__named_expression_lhs, STATE 12752), (sym_return_statement, STATE 11814),
    (sym_delete_statement, STATE 11814), (sym_raise_statement, STATE 11814),
    (sym_pass_statement, STATE 11814), (sym_break_statement, STATE 11814),
    (sym_continue_statement, STATE 11814), (sym_global_statement, STATE 11814),
    (sym_nonlocal_statement, STATE 11814), (sym_exec_statement, STATE 11814),
    (sym_type_alias_statement, STATE 11814), (sym_parameterized_alias_statement, STATE 11814),
    (sym_pattern, STATE 8086), (sym_tuple_pattern, STATE 8101), (sym_list_pattern, STATE 8101),
    (sym_list_splat_pattern, STATE 6795), (sym_as_pattern, STATE 7969),
    (sym_expression, STATE 9623), (sym_primary_expression, STATE 7326),
    (sym_comptime_expression, STATE 7017), (sym_transfer_expression, STATE 7017),
    (sym_not_operator, STATE 7969), (sym_boolean_operator, STATE 7969),
    (sym_binary_operator, STATE 7017), (sym_unary_operator, STATE 7017),
    (sym_comparison_operator, STATE 7969), (sym_lambda, STATE 7969),
    (sym_assignment, STATE 12425), (sym_augmented_assignment, STATE 12425),
    (sym_pattern_list, STATE 8578), (sym_yield, STATE 12425), (sym_attribute, STATE 6796),
    (sym_subscript, STATE 6797), (sym_call, STATE 6768), (sym_type, STATE 10130),
    (sym_called_type, STATE 9093), (sym_function_type, STATE 9093), (sym_splat_type, STATE 9093),
    (sym_generic_type, STATE 8287), (sym_union_type, STATE 9093),
    (sym_intersection_type, STATE 9093), (sym__intersection_operand, STATE 12294),
    (sym_constrained_type, STATE 9093), (sym_member_type, STATE 8165),
    (sym_mlir_type, STATE 7017), (sym_list, STATE 7017), (sym_set, STATE 7017),
    (sym_tuple, STATE 7017), (sym_dictionary, STATE 7017), (sym_struct_literal, STATE 7017),
    (sym_list_comprehension, STATE 7017), (sym_dictionary_comprehension, STATE 7017),
    (sym_set_comprehension, STATE 7017), (sym_generator_expression, STATE 7017),
    (sym_parenthesized_expression, STATE 7017), (sym_conditional_expression, STATE 7969),
    (sym_concatenated_string, STATE 7017), (sym_string, STATE 6729), (sym_await, STATE 7017),
    (sym_identifier, ACTIONS 327), (anon_sym_import, ACTIONS 11), (anon_sym_from, ACTIONS 13),
    (anon_sym_LPAREN, ACTIONS 329), (anon_sym_STAR, ACTIONS 331), (anon_sym_print, ACTIONS 333),
    (anon_sym_comptime, ACTIONS 335), (anon_sym_assert, ACTIONS 23),
    (anon_sym___comptime_assert, ACTIONS 25), (anon_sym_return, ACTIONS 27),
    (anon_sym_del, ACTIONS 29), (anon_sym_raise, ACTIONS 31), (anon_sym_pass, ACTIONS 33),
    (anon_sym_break, ACTIONS 35), (anon_sym_continue, ACTIONS 37), (anon_sym_match, ACTIONS 337),
    (anon_sym_async, ACTIONS 339), (anon_sym_def, ACTIONS 341), (anon_sym_LBRACK, ACTIONS 343),
    (anon_sym_LBRACE, ACTIONS 61), (anon_sym_STAR_STAR, ACTIONS 345),
    (anon_sym_global, ACTIONS 63), (anon_sym_nonlocal, ACTIONS 65), (anon_sym_exec, ACTIONS 347),
    (anon_sym_type, ACTIONS 349), (anon_sym_mut, ACTIONS 339), (anon_sym_out, ACTIONS 339),
    (anon_sym_DASH, ACTIONS 79), (anon_sym_PLUS, ACTIONS 79), (anon_sym_ref, ACTIONS 81),
    (anon_sym_var, ACTIONS 81), (anon_sym_not, ACTIONS 83), (anon_sym_TILDE, ACTIONS 79),
    (anon_sym_lambda, ACTIONS 85), (anon_sym_yield, ACTIONS 87), (sym_ellipsis, ACTIONS 89),
    (anon_sym___mlir_type, ACTIONS 91), (sym_integer, ACTIONS 93), (sym_float, ACTIONS 89),
    (anon_sym_await, ACTIONS 351), (sym_true, ACTIONS 93), (sym_false, ACTIONS 93),
    (sym_none, ACTIONS 93), (sym_comment, ACTIONS 3), (sym_line_continuation, ACTIONS 3),
    (sym__newline, ACTIONS 1253), (sym__indent, ACTIONS 1255), (sym_string_start, ACTIONS 97)]"

definition parse_table_1155 :: "(nat \<times> nat) list" where "parse_table_1155 = [
    (sym__simple_statements, STATE 4358), (sym_import_statement, STATE 11814),
    (sym_future_import_statement, STATE 11814), (sym_import_from_statement, STATE 11814),
    (sym_print_statement, STATE 11814), (sym_assert_statement, STATE 11814),
    (sym_comptime_assert_statement, STATE 11814), (sym_expression_statement, STATE 11814),
    (sym_tuple_expression, STATE 12425), (sym_named_expression, STATE 7969),
    (sym__named_expression_lhs, STATE 12752), (sym_return_statement, STATE 11814),
    (sym_delete_statement, STATE 11814), (sym_raise_statement, STATE 11814),
    (sym_pass_statement, STATE 11814), (sym_break_statement, STATE 11814),
    (sym_continue_statement, STATE 11814), (sym_global_statement, STATE 11814),
    (sym_nonlocal_statement, STATE 11814), (sym_exec_statement, STATE 11814),
    (sym_type_alias_statement, STATE 11814), (sym_parameterized_alias_statement, STATE 11814),
    (sym_pattern, STATE 8086), (sym_tuple_pattern, STATE 8101), (sym_list_pattern, STATE 8101),
    (sym_list_splat_pattern, STATE 6795), (sym_as_pattern, STATE 7969),
    (sym_expression, STATE 9623), (sym_primary_expression, STATE 7326),
    (sym_comptime_expression, STATE 7017), (sym_transfer_expression, STATE 7017),
    (sym_not_operator, STATE 7969), (sym_boolean_operator, STATE 7969),
    (sym_binary_operator, STATE 7017), (sym_unary_operator, STATE 7017),
    (sym_comparison_operator, STATE 7969), (sym_lambda, STATE 7969),
    (sym_assignment, STATE 12425), (sym_augmented_assignment, STATE 12425),
    (sym_pattern_list, STATE 8578), (sym_yield, STATE 12425), (sym_attribute, STATE 6796),
    (sym_subscript, STATE 6797), (sym_call, STATE 6768), (sym_type, STATE 10130),
    (sym_called_type, STATE 9093), (sym_function_type, STATE 9093), (sym_splat_type, STATE 9093),
    (sym_generic_type, STATE 8287), (sym_union_type, STATE 9093),
    (sym_intersection_type, STATE 9093), (sym__intersection_operand, STATE 12294),
    (sym_constrained_type, STATE 9093), (sym_member_type, STATE 8165),
    (sym_mlir_type, STATE 7017), (sym_list, STATE 7017), (sym_set, STATE 7017),
    (sym_tuple, STATE 7017), (sym_dictionary, STATE 7017), (sym_struct_literal, STATE 7017),
    (sym_list_comprehension, STATE 7017), (sym_dictionary_comprehension, STATE 7017),
    (sym_set_comprehension, STATE 7017), (sym_generator_expression, STATE 7017),
    (sym_parenthesized_expression, STATE 7017), (sym_conditional_expression, STATE 7969),
    (sym_concatenated_string, STATE 7017), (sym_string, STATE 6729), (sym_await, STATE 7017),
    (sym_identifier, ACTIONS 327), (anon_sym_import, ACTIONS 11), (anon_sym_from, ACTIONS 13),
    (anon_sym_LPAREN, ACTIONS 329), (anon_sym_STAR, ACTIONS 331), (anon_sym_print, ACTIONS 333),
    (anon_sym_comptime, ACTIONS 335), (anon_sym_assert, ACTIONS 23),
    (anon_sym___comptime_assert, ACTIONS 25), (anon_sym_return, ACTIONS 27),
    (anon_sym_del, ACTIONS 29), (anon_sym_raise, ACTIONS 31), (anon_sym_pass, ACTIONS 33),
    (anon_sym_break, ACTIONS 35), (anon_sym_continue, ACTIONS 37), (anon_sym_match, ACTIONS 337),
    (anon_sym_async, ACTIONS 339), (anon_sym_def, ACTIONS 341), (anon_sym_LBRACK, ACTIONS 343),
    (anon_sym_LBRACE, ACTIONS 61), (anon_sym_STAR_STAR, ACTIONS 345),
    (anon_sym_global, ACTIONS 63), (anon_sym_nonlocal, ACTIONS 65), (anon_sym_exec, ACTIONS 347),
    (anon_sym_type, ACTIONS 349), (anon_sym_mut, ACTIONS 339), (anon_sym_out, ACTIONS 339),
    (anon_sym_DASH, ACTIONS 79), (anon_sym_PLUS, ACTIONS 79), (anon_sym_ref, ACTIONS 81),
    (anon_sym_var, ACTIONS 81), (anon_sym_not, ACTIONS 83), (anon_sym_TILDE, ACTIONS 79),
    (anon_sym_lambda, ACTIONS 85), (anon_sym_yield, ACTIONS 87), (sym_ellipsis, ACTIONS 89),
    (anon_sym___mlir_type, ACTIONS 91), (sym_integer, ACTIONS 93), (sym_float, ACTIONS 89),
    (anon_sym_await, ACTIONS 351), (sym_true, ACTIONS 93), (sym_false, ACTIONS 93),
    (sym_none, ACTIONS 93), (sym_comment, ACTIONS 3), (sym_line_continuation, ACTIONS 3),
    (sym__newline, ACTIONS 1257), (sym__indent, ACTIONS 1259), (sym_string_start, ACTIONS 97)]"

definition parse_table_1156 :: "(nat \<times> nat) list" where "parse_table_1156 = [
    (sym__simple_statements, STATE 5869), (sym_import_statement, STATE 11814),
    (sym_future_import_statement, STATE 11814), (sym_import_from_statement, STATE 11814),
    (sym_print_statement, STATE 11814), (sym_assert_statement, STATE 11814),
    (sym_comptime_assert_statement, STATE 11814), (sym_expression_statement, STATE 11814),
    (sym_tuple_expression, STATE 12425), (sym_named_expression, STATE 7969),
    (sym__named_expression_lhs, STATE 12752), (sym_return_statement, STATE 11814),
    (sym_delete_statement, STATE 11814), (sym_raise_statement, STATE 11814),
    (sym_pass_statement, STATE 11814), (sym_break_statement, STATE 11814),
    (sym_continue_statement, STATE 11814), (sym_global_statement, STATE 11814),
    (sym_nonlocal_statement, STATE 11814), (sym_exec_statement, STATE 11814),
    (sym_type_alias_statement, STATE 11814), (sym_parameterized_alias_statement, STATE 11814),
    (sym_pattern, STATE 8086), (sym_tuple_pattern, STATE 8101), (sym_list_pattern, STATE 8101),
    (sym_list_splat_pattern, STATE 6795), (sym_as_pattern, STATE 7969),
    (sym_expression, STATE 9623), (sym_primary_expression, STATE 7326),
    (sym_comptime_expression, STATE 7017), (sym_transfer_expression, STATE 7017),
    (sym_not_operator, STATE 7969), (sym_boolean_operator, STATE 7969),
    (sym_binary_operator, STATE 7017), (sym_unary_operator, STATE 7017),
    (sym_comparison_operator, STATE 7969), (sym_lambda, STATE 7969),
    (sym_assignment, STATE 12425), (sym_augmented_assignment, STATE 12425),
    (sym_pattern_list, STATE 8578), (sym_yield, STATE 12425), (sym_attribute, STATE 6796),
    (sym_subscript, STATE 6797), (sym_call, STATE 6768), (sym_type, STATE 10130),
    (sym_called_type, STATE 9093), (sym_function_type, STATE 9093), (sym_splat_type, STATE 9093),
    (sym_generic_type, STATE 8287), (sym_union_type, STATE 9093),
    (sym_intersection_type, STATE 9093), (sym__intersection_operand, STATE 12294),
    (sym_constrained_type, STATE 9093), (sym_member_type, STATE 8165),
    (sym_mlir_type, STATE 7017), (sym_list, STATE 7017), (sym_set, STATE 7017),
    (sym_tuple, STATE 7017), (sym_dictionary, STATE 7017), (sym_struct_literal, STATE 7017),
    (sym_list_comprehension, STATE 7017), (sym_dictionary_comprehension, STATE 7017),
    (sym_set_comprehension, STATE 7017), (sym_generator_expression, STATE 7017),
    (sym_parenthesized_expression, STATE 7017), (sym_conditional_expression, STATE 7969),
    (sym_concatenated_string, STATE 7017), (sym_string, STATE 6729), (sym_await, STATE 7017),
    (sym_identifier, ACTIONS 327), (anon_sym_import, ACTIONS 11), (anon_sym_from, ACTIONS 13),
    (anon_sym_LPAREN, ACTIONS 329), (anon_sym_STAR, ACTIONS 331), (anon_sym_print, ACTIONS 333),
    (anon_sym_comptime, ACTIONS 335), (anon_sym_assert, ACTIONS 23),
    (anon_sym___comptime_assert, ACTIONS 25), (anon_sym_return, ACTIONS 27),
    (anon_sym_del, ACTIONS 29), (anon_sym_raise, ACTIONS 31), (anon_sym_pass, ACTIONS 33),
    (anon_sym_break, ACTIONS 35), (anon_sym_continue, ACTIONS 37), (anon_sym_match, ACTIONS 337),
    (anon_sym_async, ACTIONS 339), (anon_sym_def, ACTIONS 341), (anon_sym_LBRACK, ACTIONS 343),
    (anon_sym_LBRACE, ACTIONS 61), (anon_sym_STAR_STAR, ACTIONS 345),
    (anon_sym_global, ACTIONS 63), (anon_sym_nonlocal, ACTIONS 65), (anon_sym_exec, ACTIONS 347),
    (anon_sym_type, ACTIONS 349), (anon_sym_mut, ACTIONS 339), (anon_sym_out, ACTIONS 339),
    (anon_sym_DASH, ACTIONS 79), (anon_sym_PLUS, ACTIONS 79), (anon_sym_ref, ACTIONS 81),
    (anon_sym_var, ACTIONS 81), (anon_sym_not, ACTIONS 83), (anon_sym_TILDE, ACTIONS 79),
    (anon_sym_lambda, ACTIONS 85), (anon_sym_yield, ACTIONS 87), (sym_ellipsis, ACTIONS 89),
    (anon_sym___mlir_type, ACTIONS 91), (sym_integer, ACTIONS 93), (sym_float, ACTIONS 89),
    (anon_sym_await, ACTIONS 351), (sym_true, ACTIONS 93), (sym_false, ACTIONS 93),
    (sym_none, ACTIONS 93), (sym_comment, ACTIONS 3), (sym_line_continuation, ACTIONS 3),
    (sym__newline, ACTIONS 1261), (sym__indent, ACTIONS 1263), (sym_string_start, ACTIONS 97)]"

definition parse_table_1157 :: "(nat \<times> nat) list" where "parse_table_1157 = [
    (sym__simple_statements, STATE 5452), (sym_import_statement, STATE 12239),
    (sym_future_import_statement, STATE 12239), (sym_import_from_statement, STATE 12239),
    (sym_print_statement, STATE 12239), (sym_assert_statement, STATE 12239),
    (sym_comptime_assert_statement, STATE 12239), (sym_expression_statement, STATE 12239),
    (sym_tuple_expression, STATE 12425), (sym_named_expression, STATE 7969),
    (sym__named_expression_lhs, STATE 12752), (sym_return_statement, STATE 12239),
    (sym_delete_statement, STATE 12239), (sym_raise_statement, STATE 12239),
    (sym_pass_statement, STATE 12239), (sym_break_statement, STATE 12239),
    (sym_continue_statement, STATE 12239), (sym_global_statement, STATE 12239),
    (sym_nonlocal_statement, STATE 12239), (sym_exec_statement, STATE 12239),
    (sym_type_alias_statement, STATE 12239), (sym_parameterized_alias_statement, STATE 12239),
    (sym_pattern, STATE 8086), (sym_tuple_pattern, STATE 8101), (sym_list_pattern, STATE 8101),
    (sym_list_splat_pattern, STATE 6795), (sym_as_pattern, STATE 7969),
    (sym_expression, STATE 9623), (sym_primary_expression, STATE 7326),
    (sym_comptime_expression, STATE 7017), (sym_transfer_expression, STATE 7017),
    (sym_not_operator, STATE 7969), (sym_boolean_operator, STATE 7969),
    (sym_binary_operator, STATE 7017), (sym_unary_operator, STATE 7017),
    (sym_comparison_operator, STATE 7969), (sym_lambda, STATE 7969),
    (sym_assignment, STATE 12425), (sym_augmented_assignment, STATE 12425),
    (sym_pattern_list, STATE 8578), (sym_yield, STATE 12425), (sym_attribute, STATE 6796),
    (sym_subscript, STATE 6797), (sym_call, STATE 6768), (sym_type, STATE 10130),
    (sym_called_type, STATE 9093), (sym_function_type, STATE 9093), (sym_splat_type, STATE 9093),
    (sym_generic_type, STATE 8287), (sym_union_type, STATE 9093),
    (sym_intersection_type, STATE 9093), (sym__intersection_operand, STATE 12294),
    (sym_constrained_type, STATE 9093), (sym_member_type, STATE 8165),
    (sym_mlir_type, STATE 7017), (sym_list, STATE 7017), (sym_set, STATE 7017),
    (sym_tuple, STATE 7017), (sym_dictionary, STATE 7017), (sym_struct_literal, STATE 7017),
    (sym_list_comprehension, STATE 7017), (sym_dictionary_comprehension, STATE 7017),
    (sym_set_comprehension, STATE 7017), (sym_generator_expression, STATE 7017),
    (sym_parenthesized_expression, STATE 7017), (sym_conditional_expression, STATE 7969),
    (sym_concatenated_string, STATE 7017), (sym_string, STATE 6729), (sym_await, STATE 7017),
    (sym_identifier, ACTIONS 327), (anon_sym_import, ACTIONS 11), (anon_sym_from, ACTIONS 13),
    (anon_sym_LPAREN, ACTIONS 329), (anon_sym_STAR, ACTIONS 331), (anon_sym_print, ACTIONS 333),
    (anon_sym_comptime, ACTIONS 335), (anon_sym_assert, ACTIONS 23),
    (anon_sym___comptime_assert, ACTIONS 25), (anon_sym_return, ACTIONS 27),
    (anon_sym_del, ACTIONS 29), (anon_sym_raise, ACTIONS 31), (anon_sym_pass, ACTIONS 33),
    (anon_sym_break, ACTIONS 35), (anon_sym_continue, ACTIONS 37), (anon_sym_match, ACTIONS 337),
    (anon_sym_async, ACTIONS 339), (anon_sym_def, ACTIONS 341), (anon_sym_LBRACK, ACTIONS 343),
    (anon_sym_LBRACE, ACTIONS 61), (anon_sym_STAR_STAR, ACTIONS 345),
    (anon_sym_global, ACTIONS 63), (anon_sym_nonlocal, ACTIONS 65), (anon_sym_exec, ACTIONS 347),
    (anon_sym_type, ACTIONS 349), (anon_sym_mut, ACTIONS 339), (anon_sym_out, ACTIONS 339),
    (anon_sym_DASH, ACTIONS 79), (anon_sym_PLUS, ACTIONS 79), (anon_sym_ref, ACTIONS 81),
    (anon_sym_var, ACTIONS 81), (anon_sym_not, ACTIONS 83), (anon_sym_TILDE, ACTIONS 79),
    (anon_sym_lambda, ACTIONS 85), (anon_sym_yield, ACTIONS 87), (sym_ellipsis, ACTIONS 89),
    (anon_sym___mlir_type, ACTIONS 91), (sym_integer, ACTIONS 93), (sym_float, ACTIONS 89),
    (anon_sym_await, ACTIONS 351), (sym_true, ACTIONS 93), (sym_false, ACTIONS 93),
    (sym_none, ACTIONS 93), (sym_comment, ACTIONS 3), (sym_line_continuation, ACTIONS 3),
    (sym__newline, ACTIONS 1265), (sym__indent, ACTIONS 1267), (sym_string_start, ACTIONS 97)]"

definition parse_table_1158 :: "(nat \<times> nat) list" where "parse_table_1158 = [
    (sym__simple_statements, STATE 6039), (sym_import_statement, STATE 12239),
    (sym_future_import_statement, STATE 12239), (sym_import_from_statement, STATE 12239),
    (sym_print_statement, STATE 12239), (sym_assert_statement, STATE 12239),
    (sym_comptime_assert_statement, STATE 12239), (sym_expression_statement, STATE 12239),
    (sym_tuple_expression, STATE 12425), (sym_named_expression, STATE 7969),
    (sym__named_expression_lhs, STATE 12752), (sym_return_statement, STATE 12239),
    (sym_delete_statement, STATE 12239), (sym_raise_statement, STATE 12239),
    (sym_pass_statement, STATE 12239), (sym_break_statement, STATE 12239),
    (sym_continue_statement, STATE 12239), (sym_global_statement, STATE 12239),
    (sym_nonlocal_statement, STATE 12239), (sym_exec_statement, STATE 12239),
    (sym_type_alias_statement, STATE 12239), (sym_parameterized_alias_statement, STATE 12239),
    (sym_pattern, STATE 8086), (sym_tuple_pattern, STATE 8101), (sym_list_pattern, STATE 8101),
    (sym_list_splat_pattern, STATE 6795), (sym_as_pattern, STATE 7969),
    (sym_expression, STATE 9623), (sym_primary_expression, STATE 7326),
    (sym_comptime_expression, STATE 7017), (sym_transfer_expression, STATE 7017),
    (sym_not_operator, STATE 7969), (sym_boolean_operator, STATE 7969),
    (sym_binary_operator, STATE 7017), (sym_unary_operator, STATE 7017),
    (sym_comparison_operator, STATE 7969), (sym_lambda, STATE 7969),
    (sym_assignment, STATE 12425), (sym_augmented_assignment, STATE 12425),
    (sym_pattern_list, STATE 8578), (sym_yield, STATE 12425), (sym_attribute, STATE 6796),
    (sym_subscript, STATE 6797), (sym_call, STATE 6768), (sym_type, STATE 10130),
    (sym_called_type, STATE 9093), (sym_function_type, STATE 9093), (sym_splat_type, STATE 9093),
    (sym_generic_type, STATE 8287), (sym_union_type, STATE 9093),
    (sym_intersection_type, STATE 9093), (sym__intersection_operand, STATE 12294),
    (sym_constrained_type, STATE 9093), (sym_member_type, STATE 8165),
    (sym_mlir_type, STATE 7017), (sym_list, STATE 7017), (sym_set, STATE 7017),
    (sym_tuple, STATE 7017), (sym_dictionary, STATE 7017), (sym_struct_literal, STATE 7017),
    (sym_list_comprehension, STATE 7017), (sym_dictionary_comprehension, STATE 7017),
    (sym_set_comprehension, STATE 7017), (sym_generator_expression, STATE 7017),
    (sym_parenthesized_expression, STATE 7017), (sym_conditional_expression, STATE 7969),
    (sym_concatenated_string, STATE 7017), (sym_string, STATE 6729), (sym_await, STATE 7017),
    (sym_identifier, ACTIONS 327), (anon_sym_import, ACTIONS 11), (anon_sym_from, ACTIONS 13),
    (anon_sym_LPAREN, ACTIONS 329), (anon_sym_STAR, ACTIONS 331), (anon_sym_print, ACTIONS 333),
    (anon_sym_comptime, ACTIONS 335), (anon_sym_assert, ACTIONS 23),
    (anon_sym___comptime_assert, ACTIONS 25), (anon_sym_return, ACTIONS 27),
    (anon_sym_del, ACTIONS 29), (anon_sym_raise, ACTIONS 31), (anon_sym_pass, ACTIONS 33),
    (anon_sym_break, ACTIONS 35), (anon_sym_continue, ACTIONS 37), (anon_sym_match, ACTIONS 337),
    (anon_sym_async, ACTIONS 339), (anon_sym_def, ACTIONS 341), (anon_sym_LBRACK, ACTIONS 343),
    (anon_sym_LBRACE, ACTIONS 61), (anon_sym_STAR_STAR, ACTIONS 345),
    (anon_sym_global, ACTIONS 63), (anon_sym_nonlocal, ACTIONS 65), (anon_sym_exec, ACTIONS 347),
    (anon_sym_type, ACTIONS 349), (anon_sym_mut, ACTIONS 339), (anon_sym_out, ACTIONS 339),
    (anon_sym_DASH, ACTIONS 79), (anon_sym_PLUS, ACTIONS 79), (anon_sym_ref, ACTIONS 81),
    (anon_sym_var, ACTIONS 81), (anon_sym_not, ACTIONS 83), (anon_sym_TILDE, ACTIONS 79),
    (anon_sym_lambda, ACTIONS 85), (anon_sym_yield, ACTIONS 87), (sym_ellipsis, ACTIONS 89),
    (anon_sym___mlir_type, ACTIONS 91), (sym_integer, ACTIONS 93), (sym_float, ACTIONS 89),
    (anon_sym_await, ACTIONS 351), (sym_true, ACTIONS 93), (sym_false, ACTIONS 93),
    (sym_none, ACTIONS 93), (sym_comment, ACTIONS 3), (sym_line_continuation, ACTIONS 3),
    (sym__newline, ACTIONS 1269), (sym__indent, ACTIONS 1271), (sym_string_start, ACTIONS 97)]"

definition parse_table_1159 :: "(nat \<times> nat) list" where "parse_table_1159 = [
    (sym__simple_statements, STATE 5874), (sym_import_statement, STATE 11814),
    (sym_future_import_statement, STATE 11814), (sym_import_from_statement, STATE 11814),
    (sym_print_statement, STATE 11814), (sym_assert_statement, STATE 11814),
    (sym_comptime_assert_statement, STATE 11814), (sym_expression_statement, STATE 11814),
    (sym_tuple_expression, STATE 12425), (sym_named_expression, STATE 7969),
    (sym__named_expression_lhs, STATE 12752), (sym_return_statement, STATE 11814),
    (sym_delete_statement, STATE 11814), (sym_raise_statement, STATE 11814),
    (sym_pass_statement, STATE 11814), (sym_break_statement, STATE 11814),
    (sym_continue_statement, STATE 11814), (sym_global_statement, STATE 11814),
    (sym_nonlocal_statement, STATE 11814), (sym_exec_statement, STATE 11814),
    (sym_type_alias_statement, STATE 11814), (sym_parameterized_alias_statement, STATE 11814),
    (sym_pattern, STATE 8086), (sym_tuple_pattern, STATE 8101), (sym_list_pattern, STATE 8101),
    (sym_list_splat_pattern, STATE 6795), (sym_as_pattern, STATE 7969),
    (sym_expression, STATE 9623), (sym_primary_expression, STATE 7326),
    (sym_comptime_expression, STATE 7017), (sym_transfer_expression, STATE 7017),
    (sym_not_operator, STATE 7969), (sym_boolean_operator, STATE 7969),
    (sym_binary_operator, STATE 7017), (sym_unary_operator, STATE 7017),
    (sym_comparison_operator, STATE 7969), (sym_lambda, STATE 7969),
    (sym_assignment, STATE 12425), (sym_augmented_assignment, STATE 12425),
    (sym_pattern_list, STATE 8578), (sym_yield, STATE 12425), (sym_attribute, STATE 6796),
    (sym_subscript, STATE 6797), (sym_call, STATE 6768), (sym_type, STATE 10130),
    (sym_called_type, STATE 9093), (sym_function_type, STATE 9093), (sym_splat_type, STATE 9093),
    (sym_generic_type, STATE 8287), (sym_union_type, STATE 9093),
    (sym_intersection_type, STATE 9093), (sym__intersection_operand, STATE 12294),
    (sym_constrained_type, STATE 9093), (sym_member_type, STATE 8165),
    (sym_mlir_type, STATE 7017), (sym_list, STATE 7017), (sym_set, STATE 7017),
    (sym_tuple, STATE 7017), (sym_dictionary, STATE 7017), (sym_struct_literal, STATE 7017),
    (sym_list_comprehension, STATE 7017), (sym_dictionary_comprehension, STATE 7017),
    (sym_set_comprehension, STATE 7017), (sym_generator_expression, STATE 7017),
    (sym_parenthesized_expression, STATE 7017), (sym_conditional_expression, STATE 7969),
    (sym_concatenated_string, STATE 7017), (sym_string, STATE 6729), (sym_await, STATE 7017),
    (sym_identifier, ACTIONS 327), (anon_sym_import, ACTIONS 11), (anon_sym_from, ACTIONS 13),
    (anon_sym_LPAREN, ACTIONS 329), (anon_sym_STAR, ACTIONS 331), (anon_sym_print, ACTIONS 333),
    (anon_sym_comptime, ACTIONS 335), (anon_sym_assert, ACTIONS 23),
    (anon_sym___comptime_assert, ACTIONS 25), (anon_sym_return, ACTIONS 27),
    (anon_sym_del, ACTIONS 29), (anon_sym_raise, ACTIONS 31), (anon_sym_pass, ACTIONS 33),
    (anon_sym_break, ACTIONS 35), (anon_sym_continue, ACTIONS 37), (anon_sym_match, ACTIONS 337),
    (anon_sym_async, ACTIONS 339), (anon_sym_def, ACTIONS 341), (anon_sym_LBRACK, ACTIONS 343),
    (anon_sym_LBRACE, ACTIONS 61), (anon_sym_STAR_STAR, ACTIONS 345),
    (anon_sym_global, ACTIONS 63), (anon_sym_nonlocal, ACTIONS 65), (anon_sym_exec, ACTIONS 347),
    (anon_sym_type, ACTIONS 349), (anon_sym_mut, ACTIONS 339), (anon_sym_out, ACTIONS 339),
    (anon_sym_DASH, ACTIONS 79), (anon_sym_PLUS, ACTIONS 79), (anon_sym_ref, ACTIONS 81),
    (anon_sym_var, ACTIONS 81), (anon_sym_not, ACTIONS 83), (anon_sym_TILDE, ACTIONS 79),
    (anon_sym_lambda, ACTIONS 85), (anon_sym_yield, ACTIONS 87), (sym_ellipsis, ACTIONS 89),
    (anon_sym___mlir_type, ACTIONS 91), (sym_integer, ACTIONS 93), (sym_float, ACTIONS 89),
    (anon_sym_await, ACTIONS 351), (sym_true, ACTIONS 93), (sym_false, ACTIONS 93),
    (sym_none, ACTIONS 93), (sym_comment, ACTIONS 3), (sym_line_continuation, ACTIONS 3),
    (sym__newline, ACTIONS 1273), (sym__indent, ACTIONS 1275), (sym_string_start, ACTIONS 97)]"

definition parse_table_1160 :: "(nat \<times> nat) list" where "parse_table_1160 = [
    (sym__simple_statements, STATE 5173), (sym_import_statement, STATE 12239),
    (sym_future_import_statement, STATE 12239), (sym_import_from_statement, STATE 12239),
    (sym_print_statement, STATE 12239), (sym_assert_statement, STATE 12239),
    (sym_comptime_assert_statement, STATE 12239), (sym_expression_statement, STATE 12239),
    (sym_tuple_expression, STATE 12425), (sym_named_expression, STATE 7969),
    (sym__named_expression_lhs, STATE 12752), (sym_return_statement, STATE 12239),
    (sym_delete_statement, STATE 12239), (sym_raise_statement, STATE 12239),
    (sym_pass_statement, STATE 12239), (sym_break_statement, STATE 12239),
    (sym_continue_statement, STATE 12239), (sym_global_statement, STATE 12239),
    (sym_nonlocal_statement, STATE 12239), (sym_exec_statement, STATE 12239),
    (sym_type_alias_statement, STATE 12239), (sym_parameterized_alias_statement, STATE 12239),
    (sym_pattern, STATE 8086), (sym_tuple_pattern, STATE 8101), (sym_list_pattern, STATE 8101),
    (sym_list_splat_pattern, STATE 6795), (sym_as_pattern, STATE 7969),
    (sym_expression, STATE 9623), (sym_primary_expression, STATE 7326),
    (sym_comptime_expression, STATE 7017), (sym_transfer_expression, STATE 7017),
    (sym_not_operator, STATE 7969), (sym_boolean_operator, STATE 7969),
    (sym_binary_operator, STATE 7017), (sym_unary_operator, STATE 7017),
    (sym_comparison_operator, STATE 7969), (sym_lambda, STATE 7969),
    (sym_assignment, STATE 12425), (sym_augmented_assignment, STATE 12425),
    (sym_pattern_list, STATE 8578), (sym_yield, STATE 12425), (sym_attribute, STATE 6796),
    (sym_subscript, STATE 6797), (sym_call, STATE 6768), (sym_type, STATE 10130),
    (sym_called_type, STATE 9093), (sym_function_type, STATE 9093), (sym_splat_type, STATE 9093),
    (sym_generic_type, STATE 8287), (sym_union_type, STATE 9093),
    (sym_intersection_type, STATE 9093), (sym__intersection_operand, STATE 12294),
    (sym_constrained_type, STATE 9093), (sym_member_type, STATE 8165),
    (sym_mlir_type, STATE 7017), (sym_list, STATE 7017), (sym_set, STATE 7017),
    (sym_tuple, STATE 7017), (sym_dictionary, STATE 7017), (sym_struct_literal, STATE 7017),
    (sym_list_comprehension, STATE 7017), (sym_dictionary_comprehension, STATE 7017),
    (sym_set_comprehension, STATE 7017), (sym_generator_expression, STATE 7017),
    (sym_parenthesized_expression, STATE 7017), (sym_conditional_expression, STATE 7969),
    (sym_concatenated_string, STATE 7017), (sym_string, STATE 6729), (sym_await, STATE 7017),
    (sym_identifier, ACTIONS 327), (anon_sym_import, ACTIONS 11), (anon_sym_from, ACTIONS 13),
    (anon_sym_LPAREN, ACTIONS 329), (anon_sym_STAR, ACTIONS 331), (anon_sym_print, ACTIONS 333),
    (anon_sym_comptime, ACTIONS 335), (anon_sym_assert, ACTIONS 23),
    (anon_sym___comptime_assert, ACTIONS 25), (anon_sym_return, ACTIONS 27),
    (anon_sym_del, ACTIONS 29), (anon_sym_raise, ACTIONS 31), (anon_sym_pass, ACTIONS 33),
    (anon_sym_break, ACTIONS 35), (anon_sym_continue, ACTIONS 37), (anon_sym_match, ACTIONS 337),
    (anon_sym_async, ACTIONS 339), (anon_sym_def, ACTIONS 341), (anon_sym_LBRACK, ACTIONS 343),
    (anon_sym_LBRACE, ACTIONS 61), (anon_sym_STAR_STAR, ACTIONS 345),
    (anon_sym_global, ACTIONS 63), (anon_sym_nonlocal, ACTIONS 65), (anon_sym_exec, ACTIONS 347),
    (anon_sym_type, ACTIONS 349), (anon_sym_mut, ACTIONS 339), (anon_sym_out, ACTIONS 339),
    (anon_sym_DASH, ACTIONS 79), (anon_sym_PLUS, ACTIONS 79), (anon_sym_ref, ACTIONS 81),
    (anon_sym_var, ACTIONS 81), (anon_sym_not, ACTIONS 83), (anon_sym_TILDE, ACTIONS 79),
    (anon_sym_lambda, ACTIONS 85), (anon_sym_yield, ACTIONS 87), (sym_ellipsis, ACTIONS 89),
    (anon_sym___mlir_type, ACTIONS 91), (sym_integer, ACTIONS 93), (sym_float, ACTIONS 89),
    (anon_sym_await, ACTIONS 351), (sym_true, ACTIONS 93), (sym_false, ACTIONS 93),
    (sym_none, ACTIONS 93), (sym_comment, ACTIONS 3), (sym_line_continuation, ACTIONS 3),
    (sym__newline, ACTIONS 1277), (sym__indent, ACTIONS 1279), (sym_string_start, ACTIONS 97)]"

definition parse_table_1161 :: "(nat \<times> nat) list" where "parse_table_1161 = [
    (sym__simple_statements, STATE 4942), (sym_import_statement, STATE 12239),
    (sym_future_import_statement, STATE 12239), (sym_import_from_statement, STATE 12239),
    (sym_print_statement, STATE 12239), (sym_assert_statement, STATE 12239),
    (sym_comptime_assert_statement, STATE 12239), (sym_expression_statement, STATE 12239),
    (sym_tuple_expression, STATE 12425), (sym_named_expression, STATE 7969),
    (sym__named_expression_lhs, STATE 12752), (sym_return_statement, STATE 12239),
    (sym_delete_statement, STATE 12239), (sym_raise_statement, STATE 12239),
    (sym_pass_statement, STATE 12239), (sym_break_statement, STATE 12239),
    (sym_continue_statement, STATE 12239), (sym_global_statement, STATE 12239),
    (sym_nonlocal_statement, STATE 12239), (sym_exec_statement, STATE 12239),
    (sym_type_alias_statement, STATE 12239), (sym_parameterized_alias_statement, STATE 12239),
    (sym_pattern, STATE 8086), (sym_tuple_pattern, STATE 8101), (sym_list_pattern, STATE 8101),
    (sym_list_splat_pattern, STATE 6795), (sym_as_pattern, STATE 7969),
    (sym_expression, STATE 9623), (sym_primary_expression, STATE 7326),
    (sym_comptime_expression, STATE 7017), (sym_transfer_expression, STATE 7017),
    (sym_not_operator, STATE 7969), (sym_boolean_operator, STATE 7969),
    (sym_binary_operator, STATE 7017), (sym_unary_operator, STATE 7017),
    (sym_comparison_operator, STATE 7969), (sym_lambda, STATE 7969),
    (sym_assignment, STATE 12425), (sym_augmented_assignment, STATE 12425),
    (sym_pattern_list, STATE 8578), (sym_yield, STATE 12425), (sym_attribute, STATE 6796),
    (sym_subscript, STATE 6797), (sym_call, STATE 6768), (sym_type, STATE 10130),
    (sym_called_type, STATE 9093), (sym_function_type, STATE 9093), (sym_splat_type, STATE 9093),
    (sym_generic_type, STATE 8287), (sym_union_type, STATE 9093),
    (sym_intersection_type, STATE 9093), (sym__intersection_operand, STATE 12294),
    (sym_constrained_type, STATE 9093), (sym_member_type, STATE 8165),
    (sym_mlir_type, STATE 7017), (sym_list, STATE 7017), (sym_set, STATE 7017),
    (sym_tuple, STATE 7017), (sym_dictionary, STATE 7017), (sym_struct_literal, STATE 7017),
    (sym_list_comprehension, STATE 7017), (sym_dictionary_comprehension, STATE 7017),
    (sym_set_comprehension, STATE 7017), (sym_generator_expression, STATE 7017),
    (sym_parenthesized_expression, STATE 7017), (sym_conditional_expression, STATE 7969),
    (sym_concatenated_string, STATE 7017), (sym_string, STATE 6729), (sym_await, STATE 7017),
    (sym_identifier, ACTIONS 327), (anon_sym_import, ACTIONS 11), (anon_sym_from, ACTIONS 13),
    (anon_sym_LPAREN, ACTIONS 329), (anon_sym_STAR, ACTIONS 331), (anon_sym_print, ACTIONS 333),
    (anon_sym_comptime, ACTIONS 335), (anon_sym_assert, ACTIONS 23),
    (anon_sym___comptime_assert, ACTIONS 25), (anon_sym_return, ACTIONS 27),
    (anon_sym_del, ACTIONS 29), (anon_sym_raise, ACTIONS 31), (anon_sym_pass, ACTIONS 33),
    (anon_sym_break, ACTIONS 35), (anon_sym_continue, ACTIONS 37), (anon_sym_match, ACTIONS 337),
    (anon_sym_async, ACTIONS 339), (anon_sym_def, ACTIONS 341), (anon_sym_LBRACK, ACTIONS 343),
    (anon_sym_LBRACE, ACTIONS 61), (anon_sym_STAR_STAR, ACTIONS 345),
    (anon_sym_global, ACTIONS 63), (anon_sym_nonlocal, ACTIONS 65), (anon_sym_exec, ACTIONS 347),
    (anon_sym_type, ACTIONS 349), (anon_sym_mut, ACTIONS 339), (anon_sym_out, ACTIONS 339),
    (anon_sym_DASH, ACTIONS 79), (anon_sym_PLUS, ACTIONS 79), (anon_sym_ref, ACTIONS 81),
    (anon_sym_var, ACTIONS 81), (anon_sym_not, ACTIONS 83), (anon_sym_TILDE, ACTIONS 79),
    (anon_sym_lambda, ACTIONS 85), (anon_sym_yield, ACTIONS 87), (sym_ellipsis, ACTIONS 89),
    (anon_sym___mlir_type, ACTIONS 91), (sym_integer, ACTIONS 93), (sym_float, ACTIONS 89),
    (anon_sym_await, ACTIONS 351), (sym_true, ACTIONS 93), (sym_false, ACTIONS 93),
    (sym_none, ACTIONS 93), (sym_comment, ACTIONS 3), (sym_line_continuation, ACTIONS 3),
    (sym__newline, ACTIONS 1281), (sym__indent, ACTIONS 1283), (sym_string_start, ACTIONS 97)]"

definition parse_table_1162 :: "(nat \<times> nat) list" where "parse_table_1162 = [
    (sym__simple_statements, STATE 5879), (sym_import_statement, STATE 11814),
    (sym_future_import_statement, STATE 11814), (sym_import_from_statement, STATE 11814),
    (sym_print_statement, STATE 11814), (sym_assert_statement, STATE 11814),
    (sym_comptime_assert_statement, STATE 11814), (sym_expression_statement, STATE 11814),
    (sym_tuple_expression, STATE 12425), (sym_named_expression, STATE 7969),
    (sym__named_expression_lhs, STATE 12752), (sym_return_statement, STATE 11814),
    (sym_delete_statement, STATE 11814), (sym_raise_statement, STATE 11814),
    (sym_pass_statement, STATE 11814), (sym_break_statement, STATE 11814),
    (sym_continue_statement, STATE 11814), (sym_global_statement, STATE 11814),
    (sym_nonlocal_statement, STATE 11814), (sym_exec_statement, STATE 11814),
    (sym_type_alias_statement, STATE 11814), (sym_parameterized_alias_statement, STATE 11814),
    (sym_pattern, STATE 8086), (sym_tuple_pattern, STATE 8101), (sym_list_pattern, STATE 8101),
    (sym_list_splat_pattern, STATE 6795), (sym_as_pattern, STATE 7969),
    (sym_expression, STATE 9623), (sym_primary_expression, STATE 7326),
    (sym_comptime_expression, STATE 7017), (sym_transfer_expression, STATE 7017),
    (sym_not_operator, STATE 7969), (sym_boolean_operator, STATE 7969),
    (sym_binary_operator, STATE 7017), (sym_unary_operator, STATE 7017),
    (sym_comparison_operator, STATE 7969), (sym_lambda, STATE 7969),
    (sym_assignment, STATE 12425), (sym_augmented_assignment, STATE 12425),
    (sym_pattern_list, STATE 8578), (sym_yield, STATE 12425), (sym_attribute, STATE 6796),
    (sym_subscript, STATE 6797), (sym_call, STATE 6768), (sym_type, STATE 10130),
    (sym_called_type, STATE 9093), (sym_function_type, STATE 9093), (sym_splat_type, STATE 9093),
    (sym_generic_type, STATE 8287), (sym_union_type, STATE 9093),
    (sym_intersection_type, STATE 9093), (sym__intersection_operand, STATE 12294),
    (sym_constrained_type, STATE 9093), (sym_member_type, STATE 8165),
    (sym_mlir_type, STATE 7017), (sym_list, STATE 7017), (sym_set, STATE 7017),
    (sym_tuple, STATE 7017), (sym_dictionary, STATE 7017), (sym_struct_literal, STATE 7017),
    (sym_list_comprehension, STATE 7017), (sym_dictionary_comprehension, STATE 7017),
    (sym_set_comprehension, STATE 7017), (sym_generator_expression, STATE 7017),
    (sym_parenthesized_expression, STATE 7017), (sym_conditional_expression, STATE 7969),
    (sym_concatenated_string, STATE 7017), (sym_string, STATE 6729), (sym_await, STATE 7017),
    (sym_identifier, ACTIONS 327), (anon_sym_import, ACTIONS 11), (anon_sym_from, ACTIONS 13),
    (anon_sym_LPAREN, ACTIONS 329), (anon_sym_STAR, ACTIONS 331), (anon_sym_print, ACTIONS 333),
    (anon_sym_comptime, ACTIONS 335), (anon_sym_assert, ACTIONS 23),
    (anon_sym___comptime_assert, ACTIONS 25), (anon_sym_return, ACTIONS 27),
    (anon_sym_del, ACTIONS 29), (anon_sym_raise, ACTIONS 31), (anon_sym_pass, ACTIONS 33),
    (anon_sym_break, ACTIONS 35), (anon_sym_continue, ACTIONS 37), (anon_sym_match, ACTIONS 337),
    (anon_sym_async, ACTIONS 339), (anon_sym_def, ACTIONS 341), (anon_sym_LBRACK, ACTIONS 343),
    (anon_sym_LBRACE, ACTIONS 61), (anon_sym_STAR_STAR, ACTIONS 345),
    (anon_sym_global, ACTIONS 63), (anon_sym_nonlocal, ACTIONS 65), (anon_sym_exec, ACTIONS 347),
    (anon_sym_type, ACTIONS 349), (anon_sym_mut, ACTIONS 339), (anon_sym_out, ACTIONS 339),
    (anon_sym_DASH, ACTIONS 79), (anon_sym_PLUS, ACTIONS 79), (anon_sym_ref, ACTIONS 81),
    (anon_sym_var, ACTIONS 81), (anon_sym_not, ACTIONS 83), (anon_sym_TILDE, ACTIONS 79),
    (anon_sym_lambda, ACTIONS 85), (anon_sym_yield, ACTIONS 87), (sym_ellipsis, ACTIONS 89),
    (anon_sym___mlir_type, ACTIONS 91), (sym_integer, ACTIONS 93), (sym_float, ACTIONS 89),
    (anon_sym_await, ACTIONS 351), (sym_true, ACTIONS 93), (sym_false, ACTIONS 93),
    (sym_none, ACTIONS 93), (sym_comment, ACTIONS 3), (sym_line_continuation, ACTIONS 3),
    (sym__newline, ACTIONS 1285), (sym__indent, ACTIONS 1287), (sym_string_start, ACTIONS 97)]"

definition parse_table_1163 :: "(nat \<times> nat) list" where "parse_table_1163 = [
    (sym__simple_statements, STATE 4692), (sym_import_statement, STATE 11814),
    (sym_future_import_statement, STATE 11814), (sym_import_from_statement, STATE 11814),
    (sym_print_statement, STATE 11814), (sym_assert_statement, STATE 11814),
    (sym_comptime_assert_statement, STATE 11814), (sym_expression_statement, STATE 11814),
    (sym_tuple_expression, STATE 12425), (sym_named_expression, STATE 7969),
    (sym__named_expression_lhs, STATE 12752), (sym_return_statement, STATE 11814),
    (sym_delete_statement, STATE 11814), (sym_raise_statement, STATE 11814),
    (sym_pass_statement, STATE 11814), (sym_break_statement, STATE 11814),
    (sym_continue_statement, STATE 11814), (sym_global_statement, STATE 11814),
    (sym_nonlocal_statement, STATE 11814), (sym_exec_statement, STATE 11814),
    (sym_type_alias_statement, STATE 11814), (sym_parameterized_alias_statement, STATE 11814),
    (sym_pattern, STATE 8086), (sym_tuple_pattern, STATE 8101), (sym_list_pattern, STATE 8101),
    (sym_list_splat_pattern, STATE 6795), (sym_as_pattern, STATE 7969),
    (sym_expression, STATE 9623), (sym_primary_expression, STATE 7326),
    (sym_comptime_expression, STATE 7017), (sym_transfer_expression, STATE 7017),
    (sym_not_operator, STATE 7969), (sym_boolean_operator, STATE 7969),
    (sym_binary_operator, STATE 7017), (sym_unary_operator, STATE 7017),
    (sym_comparison_operator, STATE 7969), (sym_lambda, STATE 7969),
    (sym_assignment, STATE 12425), (sym_augmented_assignment, STATE 12425),
    (sym_pattern_list, STATE 8578), (sym_yield, STATE 12425), (sym_attribute, STATE 6796),
    (sym_subscript, STATE 6797), (sym_call, STATE 6768), (sym_type, STATE 10130),
    (sym_called_type, STATE 9093), (sym_function_type, STATE 9093), (sym_splat_type, STATE 9093),
    (sym_generic_type, STATE 8287), (sym_union_type, STATE 9093),
    (sym_intersection_type, STATE 9093), (sym__intersection_operand, STATE 12294),
    (sym_constrained_type, STATE 9093), (sym_member_type, STATE 8165),
    (sym_mlir_type, STATE 7017), (sym_list, STATE 7017), (sym_set, STATE 7017),
    (sym_tuple, STATE 7017), (sym_dictionary, STATE 7017), (sym_struct_literal, STATE 7017),
    (sym_list_comprehension, STATE 7017), (sym_dictionary_comprehension, STATE 7017),
    (sym_set_comprehension, STATE 7017), (sym_generator_expression, STATE 7017),
    (sym_parenthesized_expression, STATE 7017), (sym_conditional_expression, STATE 7969),
    (sym_concatenated_string, STATE 7017), (sym_string, STATE 6729), (sym_await, STATE 7017),
    (sym_identifier, ACTIONS 327), (anon_sym_import, ACTIONS 11), (anon_sym_from, ACTIONS 13),
    (anon_sym_LPAREN, ACTIONS 329), (anon_sym_STAR, ACTIONS 331), (anon_sym_print, ACTIONS 333),
    (anon_sym_comptime, ACTIONS 335), (anon_sym_assert, ACTIONS 23),
    (anon_sym___comptime_assert, ACTIONS 25), (anon_sym_return, ACTIONS 27),
    (anon_sym_del, ACTIONS 29), (anon_sym_raise, ACTIONS 31), (anon_sym_pass, ACTIONS 33),
    (anon_sym_break, ACTIONS 35), (anon_sym_continue, ACTIONS 37), (anon_sym_match, ACTIONS 337),
    (anon_sym_async, ACTIONS 339), (anon_sym_def, ACTIONS 341), (anon_sym_LBRACK, ACTIONS 343),
    (anon_sym_LBRACE, ACTIONS 61), (anon_sym_STAR_STAR, ACTIONS 345),
    (anon_sym_global, ACTIONS 63), (anon_sym_nonlocal, ACTIONS 65), (anon_sym_exec, ACTIONS 347),
    (anon_sym_type, ACTIONS 349), (anon_sym_mut, ACTIONS 339), (anon_sym_out, ACTIONS 339),
    (anon_sym_DASH, ACTIONS 79), (anon_sym_PLUS, ACTIONS 79), (anon_sym_ref, ACTIONS 81),
    (anon_sym_var, ACTIONS 81), (anon_sym_not, ACTIONS 83), (anon_sym_TILDE, ACTIONS 79),
    (anon_sym_lambda, ACTIONS 85), (anon_sym_yield, ACTIONS 87), (sym_ellipsis, ACTIONS 89),
    (anon_sym___mlir_type, ACTIONS 91), (sym_integer, ACTIONS 93), (sym_float, ACTIONS 89),
    (anon_sym_await, ACTIONS 351), (sym_true, ACTIONS 93), (sym_false, ACTIONS 93),
    (sym_none, ACTIONS 93), (sym_comment, ACTIONS 3), (sym_line_continuation, ACTIONS 3),
    (sym__newline, ACTIONS 1289), (sym__indent, ACTIONS 1291), (sym_string_start, ACTIONS 97)]"

definition parse_table_1164 :: "(nat \<times> nat) list" where "parse_table_1164 = [
    (sym__simple_statements, STATE 6320), (sym_import_statement, STATE 12239),
    (sym_future_import_statement, STATE 12239), (sym_import_from_statement, STATE 12239),
    (sym_print_statement, STATE 12239), (sym_assert_statement, STATE 12239),
    (sym_comptime_assert_statement, STATE 12239), (sym_expression_statement, STATE 12239),
    (sym_tuple_expression, STATE 12425), (sym_named_expression, STATE 7969),
    (sym__named_expression_lhs, STATE 12752), (sym_return_statement, STATE 12239),
    (sym_delete_statement, STATE 12239), (sym_raise_statement, STATE 12239),
    (sym_pass_statement, STATE 12239), (sym_break_statement, STATE 12239),
    (sym_continue_statement, STATE 12239), (sym_global_statement, STATE 12239),
    (sym_nonlocal_statement, STATE 12239), (sym_exec_statement, STATE 12239),
    (sym_type_alias_statement, STATE 12239), (sym_parameterized_alias_statement, STATE 12239),
    (sym_pattern, STATE 8086), (sym_tuple_pattern, STATE 8101), (sym_list_pattern, STATE 8101),
    (sym_list_splat_pattern, STATE 6795), (sym_as_pattern, STATE 7969),
    (sym_expression, STATE 9623), (sym_primary_expression, STATE 7326),
    (sym_comptime_expression, STATE 7017), (sym_transfer_expression, STATE 7017),
    (sym_not_operator, STATE 7969), (sym_boolean_operator, STATE 7969),
    (sym_binary_operator, STATE 7017), (sym_unary_operator, STATE 7017),
    (sym_comparison_operator, STATE 7969), (sym_lambda, STATE 7969),
    (sym_assignment, STATE 12425), (sym_augmented_assignment, STATE 12425),
    (sym_pattern_list, STATE 8578), (sym_yield, STATE 12425), (sym_attribute, STATE 6796),
    (sym_subscript, STATE 6797), (sym_call, STATE 6768), (sym_type, STATE 10130),
    (sym_called_type, STATE 9093), (sym_function_type, STATE 9093), (sym_splat_type, STATE 9093),
    (sym_generic_type, STATE 8287), (sym_union_type, STATE 9093),
    (sym_intersection_type, STATE 9093), (sym__intersection_operand, STATE 12294),
    (sym_constrained_type, STATE 9093), (sym_member_type, STATE 8165),
    (sym_mlir_type, STATE 7017), (sym_list, STATE 7017), (sym_set, STATE 7017),
    (sym_tuple, STATE 7017), (sym_dictionary, STATE 7017), (sym_struct_literal, STATE 7017),
    (sym_list_comprehension, STATE 7017), (sym_dictionary_comprehension, STATE 7017),
    (sym_set_comprehension, STATE 7017), (sym_generator_expression, STATE 7017),
    (sym_parenthesized_expression, STATE 7017), (sym_conditional_expression, STATE 7969),
    (sym_concatenated_string, STATE 7017), (sym_string, STATE 6729), (sym_await, STATE 7017),
    (sym_identifier, ACTIONS 327), (anon_sym_import, ACTIONS 11), (anon_sym_from, ACTIONS 13),
    (anon_sym_LPAREN, ACTIONS 329), (anon_sym_STAR, ACTIONS 331), (anon_sym_print, ACTIONS 333),
    (anon_sym_comptime, ACTIONS 335), (anon_sym_assert, ACTIONS 23),
    (anon_sym___comptime_assert, ACTIONS 25), (anon_sym_return, ACTIONS 27),
    (anon_sym_del, ACTIONS 29), (anon_sym_raise, ACTIONS 31), (anon_sym_pass, ACTIONS 33),
    (anon_sym_break, ACTIONS 35), (anon_sym_continue, ACTIONS 37), (anon_sym_match, ACTIONS 337),
    (anon_sym_async, ACTIONS 339), (anon_sym_def, ACTIONS 341), (anon_sym_LBRACK, ACTIONS 343),
    (anon_sym_LBRACE, ACTIONS 61), (anon_sym_STAR_STAR, ACTIONS 345),
    (anon_sym_global, ACTIONS 63), (anon_sym_nonlocal, ACTIONS 65), (anon_sym_exec, ACTIONS 347),
    (anon_sym_type, ACTIONS 349), (anon_sym_mut, ACTIONS 339), (anon_sym_out, ACTIONS 339),
    (anon_sym_DASH, ACTIONS 79), (anon_sym_PLUS, ACTIONS 79), (anon_sym_ref, ACTIONS 81),
    (anon_sym_var, ACTIONS 81), (anon_sym_not, ACTIONS 83), (anon_sym_TILDE, ACTIONS 79),
    (anon_sym_lambda, ACTIONS 85), (anon_sym_yield, ACTIONS 87), (sym_ellipsis, ACTIONS 89),
    (anon_sym___mlir_type, ACTIONS 91), (sym_integer, ACTIONS 93), (sym_float, ACTIONS 89),
    (anon_sym_await, ACTIONS 351), (sym_true, ACTIONS 93), (sym_false, ACTIONS 93),
    (sym_none, ACTIONS 93), (sym_comment, ACTIONS 3), (sym_line_continuation, ACTIONS 3),
    (sym__newline, ACTIONS 1293), (sym__indent, ACTIONS 1295), (sym_string_start, ACTIONS 97)]"

definition parse_table_1165 :: "(nat \<times> nat) list" where "parse_table_1165 = [
    (sym__simple_statements, STATE 5488), (sym_import_statement, STATE 12239),
    (sym_future_import_statement, STATE 12239), (sym_import_from_statement, STATE 12239),
    (sym_print_statement, STATE 12239), (sym_assert_statement, STATE 12239),
    (sym_comptime_assert_statement, STATE 12239), (sym_expression_statement, STATE 12239),
    (sym_tuple_expression, STATE 12425), (sym_named_expression, STATE 7969),
    (sym__named_expression_lhs, STATE 12752), (sym_return_statement, STATE 12239),
    (sym_delete_statement, STATE 12239), (sym_raise_statement, STATE 12239),
    (sym_pass_statement, STATE 12239), (sym_break_statement, STATE 12239),
    (sym_continue_statement, STATE 12239), (sym_global_statement, STATE 12239),
    (sym_nonlocal_statement, STATE 12239), (sym_exec_statement, STATE 12239),
    (sym_type_alias_statement, STATE 12239), (sym_parameterized_alias_statement, STATE 12239),
    (sym_pattern, STATE 8086), (sym_tuple_pattern, STATE 8101), (sym_list_pattern, STATE 8101),
    (sym_list_splat_pattern, STATE 6795), (sym_as_pattern, STATE 7969),
    (sym_expression, STATE 9623), (sym_primary_expression, STATE 7326),
    (sym_comptime_expression, STATE 7017), (sym_transfer_expression, STATE 7017),
    (sym_not_operator, STATE 7969), (sym_boolean_operator, STATE 7969),
    (sym_binary_operator, STATE 7017), (sym_unary_operator, STATE 7017),
    (sym_comparison_operator, STATE 7969), (sym_lambda, STATE 7969),
    (sym_assignment, STATE 12425), (sym_augmented_assignment, STATE 12425),
    (sym_pattern_list, STATE 8578), (sym_yield, STATE 12425), (sym_attribute, STATE 6796),
    (sym_subscript, STATE 6797), (sym_call, STATE 6768), (sym_type, STATE 10130),
    (sym_called_type, STATE 9093), (sym_function_type, STATE 9093), (sym_splat_type, STATE 9093),
    (sym_generic_type, STATE 8287), (sym_union_type, STATE 9093),
    (sym_intersection_type, STATE 9093), (sym__intersection_operand, STATE 12294),
    (sym_constrained_type, STATE 9093), (sym_member_type, STATE 8165),
    (sym_mlir_type, STATE 7017), (sym_list, STATE 7017), (sym_set, STATE 7017),
    (sym_tuple, STATE 7017), (sym_dictionary, STATE 7017), (sym_struct_literal, STATE 7017),
    (sym_list_comprehension, STATE 7017), (sym_dictionary_comprehension, STATE 7017),
    (sym_set_comprehension, STATE 7017), (sym_generator_expression, STATE 7017),
    (sym_parenthesized_expression, STATE 7017), (sym_conditional_expression, STATE 7969),
    (sym_concatenated_string, STATE 7017), (sym_string, STATE 6729), (sym_await, STATE 7017),
    (sym_identifier, ACTIONS 327), (anon_sym_import, ACTIONS 11), (anon_sym_from, ACTIONS 13),
    (anon_sym_LPAREN, ACTIONS 329), (anon_sym_STAR, ACTIONS 331), (anon_sym_print, ACTIONS 333),
    (anon_sym_comptime, ACTIONS 335), (anon_sym_assert, ACTIONS 23),
    (anon_sym___comptime_assert, ACTIONS 25), (anon_sym_return, ACTIONS 27),
    (anon_sym_del, ACTIONS 29), (anon_sym_raise, ACTIONS 31), (anon_sym_pass, ACTIONS 33),
    (anon_sym_break, ACTIONS 35), (anon_sym_continue, ACTIONS 37), (anon_sym_match, ACTIONS 337),
    (anon_sym_async, ACTIONS 339), (anon_sym_def, ACTIONS 341), (anon_sym_LBRACK, ACTIONS 343),
    (anon_sym_LBRACE, ACTIONS 61), (anon_sym_STAR_STAR, ACTIONS 345),
    (anon_sym_global, ACTIONS 63), (anon_sym_nonlocal, ACTIONS 65), (anon_sym_exec, ACTIONS 347),
    (anon_sym_type, ACTIONS 349), (anon_sym_mut, ACTIONS 339), (anon_sym_out, ACTIONS 339),
    (anon_sym_DASH, ACTIONS 79), (anon_sym_PLUS, ACTIONS 79), (anon_sym_ref, ACTIONS 81),
    (anon_sym_var, ACTIONS 81), (anon_sym_not, ACTIONS 83), (anon_sym_TILDE, ACTIONS 79),
    (anon_sym_lambda, ACTIONS 85), (anon_sym_yield, ACTIONS 87), (sym_ellipsis, ACTIONS 89),
    (anon_sym___mlir_type, ACTIONS 91), (sym_integer, ACTIONS 93), (sym_float, ACTIONS 89),
    (anon_sym_await, ACTIONS 351), (sym_true, ACTIONS 93), (sym_false, ACTIONS 93),
    (sym_none, ACTIONS 93), (sym_comment, ACTIONS 3), (sym_line_continuation, ACTIONS 3),
    (sym__newline, ACTIONS 1297), (sym__indent, ACTIONS 1299), (sym_string_start, ACTIONS 97)]"

definition parse_table_1166 :: "(nat \<times> nat) list" where "parse_table_1166 = [
    (sym__simple_statements, STATE 5890), (sym_import_statement, STATE 11814),
    (sym_future_import_statement, STATE 11814), (sym_import_from_statement, STATE 11814),
    (sym_print_statement, STATE 11814), (sym_assert_statement, STATE 11814),
    (sym_comptime_assert_statement, STATE 11814), (sym_expression_statement, STATE 11814),
    (sym_tuple_expression, STATE 12425), (sym_named_expression, STATE 7969),
    (sym__named_expression_lhs, STATE 12752), (sym_return_statement, STATE 11814),
    (sym_delete_statement, STATE 11814), (sym_raise_statement, STATE 11814),
    (sym_pass_statement, STATE 11814), (sym_break_statement, STATE 11814),
    (sym_continue_statement, STATE 11814), (sym_global_statement, STATE 11814),
    (sym_nonlocal_statement, STATE 11814), (sym_exec_statement, STATE 11814),
    (sym_type_alias_statement, STATE 11814), (sym_parameterized_alias_statement, STATE 11814),
    (sym_pattern, STATE 8086), (sym_tuple_pattern, STATE 8101), (sym_list_pattern, STATE 8101),
    (sym_list_splat_pattern, STATE 6795), (sym_as_pattern, STATE 7969),
    (sym_expression, STATE 9623), (sym_primary_expression, STATE 7326),
    (sym_comptime_expression, STATE 7017), (sym_transfer_expression, STATE 7017),
    (sym_not_operator, STATE 7969), (sym_boolean_operator, STATE 7969),
    (sym_binary_operator, STATE 7017), (sym_unary_operator, STATE 7017),
    (sym_comparison_operator, STATE 7969), (sym_lambda, STATE 7969),
    (sym_assignment, STATE 12425), (sym_augmented_assignment, STATE 12425),
    (sym_pattern_list, STATE 8578), (sym_yield, STATE 12425), (sym_attribute, STATE 6796),
    (sym_subscript, STATE 6797), (sym_call, STATE 6768), (sym_type, STATE 10130),
    (sym_called_type, STATE 9093), (sym_function_type, STATE 9093), (sym_splat_type, STATE 9093),
    (sym_generic_type, STATE 8287), (sym_union_type, STATE 9093),
    (sym_intersection_type, STATE 9093), (sym__intersection_operand, STATE 12294),
    (sym_constrained_type, STATE 9093), (sym_member_type, STATE 8165),
    (sym_mlir_type, STATE 7017), (sym_list, STATE 7017), (sym_set, STATE 7017),
    (sym_tuple, STATE 7017), (sym_dictionary, STATE 7017), (sym_struct_literal, STATE 7017),
    (sym_list_comprehension, STATE 7017), (sym_dictionary_comprehension, STATE 7017),
    (sym_set_comprehension, STATE 7017), (sym_generator_expression, STATE 7017),
    (sym_parenthesized_expression, STATE 7017), (sym_conditional_expression, STATE 7969),
    (sym_concatenated_string, STATE 7017), (sym_string, STATE 6729), (sym_await, STATE 7017),
    (sym_identifier, ACTIONS 327), (anon_sym_import, ACTIONS 11), (anon_sym_from, ACTIONS 13),
    (anon_sym_LPAREN, ACTIONS 329), (anon_sym_STAR, ACTIONS 331), (anon_sym_print, ACTIONS 333),
    (anon_sym_comptime, ACTIONS 335), (anon_sym_assert, ACTIONS 23),
    (anon_sym___comptime_assert, ACTIONS 25), (anon_sym_return, ACTIONS 27),
    (anon_sym_del, ACTIONS 29), (anon_sym_raise, ACTIONS 31), (anon_sym_pass, ACTIONS 33),
    (anon_sym_break, ACTIONS 35), (anon_sym_continue, ACTIONS 37), (anon_sym_match, ACTIONS 337),
    (anon_sym_async, ACTIONS 339), (anon_sym_def, ACTIONS 341), (anon_sym_LBRACK, ACTIONS 343),
    (anon_sym_LBRACE, ACTIONS 61), (anon_sym_STAR_STAR, ACTIONS 345),
    (anon_sym_global, ACTIONS 63), (anon_sym_nonlocal, ACTIONS 65), (anon_sym_exec, ACTIONS 347),
    (anon_sym_type, ACTIONS 349), (anon_sym_mut, ACTIONS 339), (anon_sym_out, ACTIONS 339),
    (anon_sym_DASH, ACTIONS 79), (anon_sym_PLUS, ACTIONS 79), (anon_sym_ref, ACTIONS 81),
    (anon_sym_var, ACTIONS 81), (anon_sym_not, ACTIONS 83), (anon_sym_TILDE, ACTIONS 79),
    (anon_sym_lambda, ACTIONS 85), (anon_sym_yield, ACTIONS 87), (sym_ellipsis, ACTIONS 89),
    (anon_sym___mlir_type, ACTIONS 91), (sym_integer, ACTIONS 93), (sym_float, ACTIONS 89),
    (anon_sym_await, ACTIONS 351), (sym_true, ACTIONS 93), (sym_false, ACTIONS 93),
    (sym_none, ACTIONS 93), (sym_comment, ACTIONS 3), (sym_line_continuation, ACTIONS 3),
    (sym__newline, ACTIONS 1301), (sym__indent, ACTIONS 1303), (sym_string_start, ACTIONS 97)]"

definition parse_table_1167 :: "(nat \<times> nat) list" where "parse_table_1167 = [
    (sym__simple_statements, STATE 4699), (sym_import_statement, STATE 11814),
    (sym_future_import_statement, STATE 11814), (sym_import_from_statement, STATE 11814),
    (sym_print_statement, STATE 11814), (sym_assert_statement, STATE 11814),
    (sym_comptime_assert_statement, STATE 11814), (sym_expression_statement, STATE 11814),
    (sym_tuple_expression, STATE 12425), (sym_named_expression, STATE 7969),
    (sym__named_expression_lhs, STATE 12752), (sym_return_statement, STATE 11814),
    (sym_delete_statement, STATE 11814), (sym_raise_statement, STATE 11814),
    (sym_pass_statement, STATE 11814), (sym_break_statement, STATE 11814),
    (sym_continue_statement, STATE 11814), (sym_global_statement, STATE 11814),
    (sym_nonlocal_statement, STATE 11814), (sym_exec_statement, STATE 11814),
    (sym_type_alias_statement, STATE 11814), (sym_parameterized_alias_statement, STATE 11814),
    (sym_pattern, STATE 8086), (sym_tuple_pattern, STATE 8101), (sym_list_pattern, STATE 8101),
    (sym_list_splat_pattern, STATE 6795), (sym_as_pattern, STATE 7969),
    (sym_expression, STATE 9623), (sym_primary_expression, STATE 7326),
    (sym_comptime_expression, STATE 7017), (sym_transfer_expression, STATE 7017),
    (sym_not_operator, STATE 7969), (sym_boolean_operator, STATE 7969),
    (sym_binary_operator, STATE 7017), (sym_unary_operator, STATE 7017),
    (sym_comparison_operator, STATE 7969), (sym_lambda, STATE 7969),
    (sym_assignment, STATE 12425), (sym_augmented_assignment, STATE 12425),
    (sym_pattern_list, STATE 8578), (sym_yield, STATE 12425), (sym_attribute, STATE 6796),
    (sym_subscript, STATE 6797), (sym_call, STATE 6768), (sym_type, STATE 10130),
    (sym_called_type, STATE 9093), (sym_function_type, STATE 9093), (sym_splat_type, STATE 9093),
    (sym_generic_type, STATE 8287), (sym_union_type, STATE 9093),
    (sym_intersection_type, STATE 9093), (sym__intersection_operand, STATE 12294),
    (sym_constrained_type, STATE 9093), (sym_member_type, STATE 8165),
    (sym_mlir_type, STATE 7017), (sym_list, STATE 7017), (sym_set, STATE 7017),
    (sym_tuple, STATE 7017), (sym_dictionary, STATE 7017), (sym_struct_literal, STATE 7017),
    (sym_list_comprehension, STATE 7017), (sym_dictionary_comprehension, STATE 7017),
    (sym_set_comprehension, STATE 7017), (sym_generator_expression, STATE 7017),
    (sym_parenthesized_expression, STATE 7017), (sym_conditional_expression, STATE 7969),
    (sym_concatenated_string, STATE 7017), (sym_string, STATE 6729), (sym_await, STATE 7017),
    (sym_identifier, ACTIONS 327), (anon_sym_import, ACTIONS 11), (anon_sym_from, ACTIONS 13),
    (anon_sym_LPAREN, ACTIONS 329), (anon_sym_STAR, ACTIONS 331), (anon_sym_print, ACTIONS 333),
    (anon_sym_comptime, ACTIONS 335), (anon_sym_assert, ACTIONS 23),
    (anon_sym___comptime_assert, ACTIONS 25), (anon_sym_return, ACTIONS 27),
    (anon_sym_del, ACTIONS 29), (anon_sym_raise, ACTIONS 31), (anon_sym_pass, ACTIONS 33),
    (anon_sym_break, ACTIONS 35), (anon_sym_continue, ACTIONS 37), (anon_sym_match, ACTIONS 337),
    (anon_sym_async, ACTIONS 339), (anon_sym_def, ACTIONS 341), (anon_sym_LBRACK, ACTIONS 343),
    (anon_sym_LBRACE, ACTIONS 61), (anon_sym_STAR_STAR, ACTIONS 345),
    (anon_sym_global, ACTIONS 63), (anon_sym_nonlocal, ACTIONS 65), (anon_sym_exec, ACTIONS 347),
    (anon_sym_type, ACTIONS 349), (anon_sym_mut, ACTIONS 339), (anon_sym_out, ACTIONS 339),
    (anon_sym_DASH, ACTIONS 79), (anon_sym_PLUS, ACTIONS 79), (anon_sym_ref, ACTIONS 81),
    (anon_sym_var, ACTIONS 81), (anon_sym_not, ACTIONS 83), (anon_sym_TILDE, ACTIONS 79),
    (anon_sym_lambda, ACTIONS 85), (anon_sym_yield, ACTIONS 87), (sym_ellipsis, ACTIONS 89),
    (anon_sym___mlir_type, ACTIONS 91), (sym_integer, ACTIONS 93), (sym_float, ACTIONS 89),
    (anon_sym_await, ACTIONS 351), (sym_true, ACTIONS 93), (sym_false, ACTIONS 93),
    (sym_none, ACTIONS 93), (sym_comment, ACTIONS 3), (sym_line_continuation, ACTIONS 3),
    (sym__newline, ACTIONS 1305), (sym__indent, ACTIONS 1307), (sym_string_start, ACTIONS 97)]"

definition parse_table_1168 :: "(nat \<times> nat) list" where "parse_table_1168 = [
    (sym__simple_statements, STATE 5117), (sym_import_statement, STATE 12239),
    (sym_future_import_statement, STATE 12239), (sym_import_from_statement, STATE 12239),
    (sym_print_statement, STATE 12239), (sym_assert_statement, STATE 12239),
    (sym_comptime_assert_statement, STATE 12239), (sym_expression_statement, STATE 12239),
    (sym_tuple_expression, STATE 12425), (sym_named_expression, STATE 7969),
    (sym__named_expression_lhs, STATE 12752), (sym_return_statement, STATE 12239),
    (sym_delete_statement, STATE 12239), (sym_raise_statement, STATE 12239),
    (sym_pass_statement, STATE 12239), (sym_break_statement, STATE 12239),
    (sym_continue_statement, STATE 12239), (sym_global_statement, STATE 12239),
    (sym_nonlocal_statement, STATE 12239), (sym_exec_statement, STATE 12239),
    (sym_type_alias_statement, STATE 12239), (sym_parameterized_alias_statement, STATE 12239),
    (sym_pattern, STATE 8086), (sym_tuple_pattern, STATE 8101), (sym_list_pattern, STATE 8101),
    (sym_list_splat_pattern, STATE 6795), (sym_as_pattern, STATE 7969),
    (sym_expression, STATE 9623), (sym_primary_expression, STATE 7326),
    (sym_comptime_expression, STATE 7017), (sym_transfer_expression, STATE 7017),
    (sym_not_operator, STATE 7969), (sym_boolean_operator, STATE 7969),
    (sym_binary_operator, STATE 7017), (sym_unary_operator, STATE 7017),
    (sym_comparison_operator, STATE 7969), (sym_lambda, STATE 7969),
    (sym_assignment, STATE 12425), (sym_augmented_assignment, STATE 12425),
    (sym_pattern_list, STATE 8578), (sym_yield, STATE 12425), (sym_attribute, STATE 6796),
    (sym_subscript, STATE 6797), (sym_call, STATE 6768), (sym_type, STATE 10130),
    (sym_called_type, STATE 9093), (sym_function_type, STATE 9093), (sym_splat_type, STATE 9093),
    (sym_generic_type, STATE 8287), (sym_union_type, STATE 9093),
    (sym_intersection_type, STATE 9093), (sym__intersection_operand, STATE 12294),
    (sym_constrained_type, STATE 9093), (sym_member_type, STATE 8165),
    (sym_mlir_type, STATE 7017), (sym_list, STATE 7017), (sym_set, STATE 7017),
    (sym_tuple, STATE 7017), (sym_dictionary, STATE 7017), (sym_struct_literal, STATE 7017),
    (sym_list_comprehension, STATE 7017), (sym_dictionary_comprehension, STATE 7017),
    (sym_set_comprehension, STATE 7017), (sym_generator_expression, STATE 7017),
    (sym_parenthesized_expression, STATE 7017), (sym_conditional_expression, STATE 7969),
    (sym_concatenated_string, STATE 7017), (sym_string, STATE 6729), (sym_await, STATE 7017),
    (sym_identifier, ACTIONS 327), (anon_sym_import, ACTIONS 11), (anon_sym_from, ACTIONS 13),
    (anon_sym_LPAREN, ACTIONS 329), (anon_sym_STAR, ACTIONS 331), (anon_sym_print, ACTIONS 333),
    (anon_sym_comptime, ACTIONS 335), (anon_sym_assert, ACTIONS 23),
    (anon_sym___comptime_assert, ACTIONS 25), (anon_sym_return, ACTIONS 27),
    (anon_sym_del, ACTIONS 29), (anon_sym_raise, ACTIONS 31), (anon_sym_pass, ACTIONS 33),
    (anon_sym_break, ACTIONS 35), (anon_sym_continue, ACTIONS 37), (anon_sym_match, ACTIONS 337),
    (anon_sym_async, ACTIONS 339), (anon_sym_def, ACTIONS 341), (anon_sym_LBRACK, ACTIONS 343),
    (anon_sym_LBRACE, ACTIONS 61), (anon_sym_STAR_STAR, ACTIONS 345),
    (anon_sym_global, ACTIONS 63), (anon_sym_nonlocal, ACTIONS 65), (anon_sym_exec, ACTIONS 347),
    (anon_sym_type, ACTIONS 349), (anon_sym_mut, ACTIONS 339), (anon_sym_out, ACTIONS 339),
    (anon_sym_DASH, ACTIONS 79), (anon_sym_PLUS, ACTIONS 79), (anon_sym_ref, ACTIONS 81),
    (anon_sym_var, ACTIONS 81), (anon_sym_not, ACTIONS 83), (anon_sym_TILDE, ACTIONS 79),
    (anon_sym_lambda, ACTIONS 85), (anon_sym_yield, ACTIONS 87), (sym_ellipsis, ACTIONS 89),
    (anon_sym___mlir_type, ACTIONS 91), (sym_integer, ACTIONS 93), (sym_float, ACTIONS 89),
    (anon_sym_await, ACTIONS 351), (sym_true, ACTIONS 93), (sym_false, ACTIONS 93),
    (sym_none, ACTIONS 93), (sym_comment, ACTIONS 3), (sym_line_continuation, ACTIONS 3),
    (sym__newline, ACTIONS 1309), (sym__indent, ACTIONS 1311), (sym_string_start, ACTIONS 97)]"

definition parse_table_1169 :: "(nat \<times> nat) list" where "parse_table_1169 = [
    (sym__simple_statements, STATE 5898), (sym_import_statement, STATE 11814),
    (sym_future_import_statement, STATE 11814), (sym_import_from_statement, STATE 11814),
    (sym_print_statement, STATE 11814), (sym_assert_statement, STATE 11814),
    (sym_comptime_assert_statement, STATE 11814), (sym_expression_statement, STATE 11814),
    (sym_tuple_expression, STATE 12425), (sym_named_expression, STATE 7969),
    (sym__named_expression_lhs, STATE 12752), (sym_return_statement, STATE 11814),
    (sym_delete_statement, STATE 11814), (sym_raise_statement, STATE 11814),
    (sym_pass_statement, STATE 11814), (sym_break_statement, STATE 11814),
    (sym_continue_statement, STATE 11814), (sym_global_statement, STATE 11814),
    (sym_nonlocal_statement, STATE 11814), (sym_exec_statement, STATE 11814),
    (sym_type_alias_statement, STATE 11814), (sym_parameterized_alias_statement, STATE 11814),
    (sym_pattern, STATE 8086), (sym_tuple_pattern, STATE 8101), (sym_list_pattern, STATE 8101),
    (sym_list_splat_pattern, STATE 6795), (sym_as_pattern, STATE 7969),
    (sym_expression, STATE 9623), (sym_primary_expression, STATE 7326),
    (sym_comptime_expression, STATE 7017), (sym_transfer_expression, STATE 7017),
    (sym_not_operator, STATE 7969), (sym_boolean_operator, STATE 7969),
    (sym_binary_operator, STATE 7017), (sym_unary_operator, STATE 7017),
    (sym_comparison_operator, STATE 7969), (sym_lambda, STATE 7969),
    (sym_assignment, STATE 12425), (sym_augmented_assignment, STATE 12425),
    (sym_pattern_list, STATE 8578), (sym_yield, STATE 12425), (sym_attribute, STATE 6796),
    (sym_subscript, STATE 6797), (sym_call, STATE 6768), (sym_type, STATE 10130),
    (sym_called_type, STATE 9093), (sym_function_type, STATE 9093), (sym_splat_type, STATE 9093),
    (sym_generic_type, STATE 8287), (sym_union_type, STATE 9093),
    (sym_intersection_type, STATE 9093), (sym__intersection_operand, STATE 12294),
    (sym_constrained_type, STATE 9093), (sym_member_type, STATE 8165),
    (sym_mlir_type, STATE 7017), (sym_list, STATE 7017), (sym_set, STATE 7017),
    (sym_tuple, STATE 7017), (sym_dictionary, STATE 7017), (sym_struct_literal, STATE 7017),
    (sym_list_comprehension, STATE 7017), (sym_dictionary_comprehension, STATE 7017),
    (sym_set_comprehension, STATE 7017), (sym_generator_expression, STATE 7017),
    (sym_parenthesized_expression, STATE 7017), (sym_conditional_expression, STATE 7969),
    (sym_concatenated_string, STATE 7017), (sym_string, STATE 6729), (sym_await, STATE 7017),
    (sym_identifier, ACTIONS 327), (anon_sym_import, ACTIONS 11), (anon_sym_from, ACTIONS 13),
    (anon_sym_LPAREN, ACTIONS 329), (anon_sym_STAR, ACTIONS 331), (anon_sym_print, ACTIONS 333),
    (anon_sym_comptime, ACTIONS 335), (anon_sym_assert, ACTIONS 23),
    (anon_sym___comptime_assert, ACTIONS 25), (anon_sym_return, ACTIONS 27),
    (anon_sym_del, ACTIONS 29), (anon_sym_raise, ACTIONS 31), (anon_sym_pass, ACTIONS 33),
    (anon_sym_break, ACTIONS 35), (anon_sym_continue, ACTIONS 37), (anon_sym_match, ACTIONS 337),
    (anon_sym_async, ACTIONS 339), (anon_sym_def, ACTIONS 341), (anon_sym_LBRACK, ACTIONS 343),
    (anon_sym_LBRACE, ACTIONS 61), (anon_sym_STAR_STAR, ACTIONS 345),
    (anon_sym_global, ACTIONS 63), (anon_sym_nonlocal, ACTIONS 65), (anon_sym_exec, ACTIONS 347),
    (anon_sym_type, ACTIONS 349), (anon_sym_mut, ACTIONS 339), (anon_sym_out, ACTIONS 339),
    (anon_sym_DASH, ACTIONS 79), (anon_sym_PLUS, ACTIONS 79), (anon_sym_ref, ACTIONS 81),
    (anon_sym_var, ACTIONS 81), (anon_sym_not, ACTIONS 83), (anon_sym_TILDE, ACTIONS 79),
    (anon_sym_lambda, ACTIONS 85), (anon_sym_yield, ACTIONS 87), (sym_ellipsis, ACTIONS 89),
    (anon_sym___mlir_type, ACTIONS 91), (sym_integer, ACTIONS 93), (sym_float, ACTIONS 89),
    (anon_sym_await, ACTIONS 351), (sym_true, ACTIONS 93), (sym_false, ACTIONS 93),
    (sym_none, ACTIONS 93), (sym_comment, ACTIONS 3), (sym_line_continuation, ACTIONS 3),
    (sym__newline, ACTIONS 1313), (sym__indent, ACTIONS 1315), (sym_string_start, ACTIONS 97)]"

definition parse_table_1170 :: "(nat \<times> nat) list" where "parse_table_1170 = [
    (sym__simple_statements, STATE 5494), (sym_import_statement, STATE 12239),
    (sym_future_import_statement, STATE 12239), (sym_import_from_statement, STATE 12239),
    (sym_print_statement, STATE 12239), (sym_assert_statement, STATE 12239),
    (sym_comptime_assert_statement, STATE 12239), (sym_expression_statement, STATE 12239),
    (sym_tuple_expression, STATE 12425), (sym_named_expression, STATE 7969),
    (sym__named_expression_lhs, STATE 12752), (sym_return_statement, STATE 12239),
    (sym_delete_statement, STATE 12239), (sym_raise_statement, STATE 12239),
    (sym_pass_statement, STATE 12239), (sym_break_statement, STATE 12239),
    (sym_continue_statement, STATE 12239), (sym_global_statement, STATE 12239),
    (sym_nonlocal_statement, STATE 12239), (sym_exec_statement, STATE 12239),
    (sym_type_alias_statement, STATE 12239), (sym_parameterized_alias_statement, STATE 12239),
    (sym_pattern, STATE 8086), (sym_tuple_pattern, STATE 8101), (sym_list_pattern, STATE 8101),
    (sym_list_splat_pattern, STATE 6795), (sym_as_pattern, STATE 7969),
    (sym_expression, STATE 9623), (sym_primary_expression, STATE 7326),
    (sym_comptime_expression, STATE 7017), (sym_transfer_expression, STATE 7017),
    (sym_not_operator, STATE 7969), (sym_boolean_operator, STATE 7969),
    (sym_binary_operator, STATE 7017), (sym_unary_operator, STATE 7017),
    (sym_comparison_operator, STATE 7969), (sym_lambda, STATE 7969),
    (sym_assignment, STATE 12425), (sym_augmented_assignment, STATE 12425),
    (sym_pattern_list, STATE 8578), (sym_yield, STATE 12425), (sym_attribute, STATE 6796),
    (sym_subscript, STATE 6797), (sym_call, STATE 6768), (sym_type, STATE 10130),
    (sym_called_type, STATE 9093), (sym_function_type, STATE 9093), (sym_splat_type, STATE 9093),
    (sym_generic_type, STATE 8287), (sym_union_type, STATE 9093),
    (sym_intersection_type, STATE 9093), (sym__intersection_operand, STATE 12294),
    (sym_constrained_type, STATE 9093), (sym_member_type, STATE 8165),
    (sym_mlir_type, STATE 7017), (sym_list, STATE 7017), (sym_set, STATE 7017),
    (sym_tuple, STATE 7017), (sym_dictionary, STATE 7017), (sym_struct_literal, STATE 7017),
    (sym_list_comprehension, STATE 7017), (sym_dictionary_comprehension, STATE 7017),
    (sym_set_comprehension, STATE 7017), (sym_generator_expression, STATE 7017),
    (sym_parenthesized_expression, STATE 7017), (sym_conditional_expression, STATE 7969),
    (sym_concatenated_string, STATE 7017), (sym_string, STATE 6729), (sym_await, STATE 7017),
    (sym_identifier, ACTIONS 327), (anon_sym_import, ACTIONS 11), (anon_sym_from, ACTIONS 13),
    (anon_sym_LPAREN, ACTIONS 329), (anon_sym_STAR, ACTIONS 331), (anon_sym_print, ACTIONS 333),
    (anon_sym_comptime, ACTIONS 335), (anon_sym_assert, ACTIONS 23),
    (anon_sym___comptime_assert, ACTIONS 25), (anon_sym_return, ACTIONS 27),
    (anon_sym_del, ACTIONS 29), (anon_sym_raise, ACTIONS 31), (anon_sym_pass, ACTIONS 33),
    (anon_sym_break, ACTIONS 35), (anon_sym_continue, ACTIONS 37), (anon_sym_match, ACTIONS 337),
    (anon_sym_async, ACTIONS 339), (anon_sym_def, ACTIONS 341), (anon_sym_LBRACK, ACTIONS 343),
    (anon_sym_LBRACE, ACTIONS 61), (anon_sym_STAR_STAR, ACTIONS 345),
    (anon_sym_global, ACTIONS 63), (anon_sym_nonlocal, ACTIONS 65), (anon_sym_exec, ACTIONS 347),
    (anon_sym_type, ACTIONS 349), (anon_sym_mut, ACTIONS 339), (anon_sym_out, ACTIONS 339),
    (anon_sym_DASH, ACTIONS 79), (anon_sym_PLUS, ACTIONS 79), (anon_sym_ref, ACTIONS 81),
    (anon_sym_var, ACTIONS 81), (anon_sym_not, ACTIONS 83), (anon_sym_TILDE, ACTIONS 79),
    (anon_sym_lambda, ACTIONS 85), (anon_sym_yield, ACTIONS 87), (sym_ellipsis, ACTIONS 89),
    (anon_sym___mlir_type, ACTIONS 91), (sym_integer, ACTIONS 93), (sym_float, ACTIONS 89),
    (anon_sym_await, ACTIONS 351), (sym_true, ACTIONS 93), (sym_false, ACTIONS 93),
    (sym_none, ACTIONS 93), (sym_comment, ACTIONS 3), (sym_line_continuation, ACTIONS 3),
    (sym__newline, ACTIONS 1317), (sym__indent, ACTIONS 1319), (sym_string_start, ACTIONS 97)]"

definition parse_table_1171 :: "(nat \<times> nat) list" where "parse_table_1171 = [
    (sym__simple_statements, STATE 5499), (sym_import_statement, STATE 12239),
    (sym_future_import_statement, STATE 12239), (sym_import_from_statement, STATE 12239),
    (sym_print_statement, STATE 12239), (sym_assert_statement, STATE 12239),
    (sym_comptime_assert_statement, STATE 12239), (sym_expression_statement, STATE 12239),
    (sym_tuple_expression, STATE 12425), (sym_named_expression, STATE 7969),
    (sym__named_expression_lhs, STATE 12752), (sym_return_statement, STATE 12239),
    (sym_delete_statement, STATE 12239), (sym_raise_statement, STATE 12239),
    (sym_pass_statement, STATE 12239), (sym_break_statement, STATE 12239),
    (sym_continue_statement, STATE 12239), (sym_global_statement, STATE 12239),
    (sym_nonlocal_statement, STATE 12239), (sym_exec_statement, STATE 12239),
    (sym_type_alias_statement, STATE 12239), (sym_parameterized_alias_statement, STATE 12239),
    (sym_pattern, STATE 8086), (sym_tuple_pattern, STATE 8101), (sym_list_pattern, STATE 8101),
    (sym_list_splat_pattern, STATE 6795), (sym_as_pattern, STATE 7969),
    (sym_expression, STATE 9623), (sym_primary_expression, STATE 7326),
    (sym_comptime_expression, STATE 7017), (sym_transfer_expression, STATE 7017),
    (sym_not_operator, STATE 7969), (sym_boolean_operator, STATE 7969),
    (sym_binary_operator, STATE 7017), (sym_unary_operator, STATE 7017),
    (sym_comparison_operator, STATE 7969), (sym_lambda, STATE 7969),
    (sym_assignment, STATE 12425), (sym_augmented_assignment, STATE 12425),
    (sym_pattern_list, STATE 8578), (sym_yield, STATE 12425), (sym_attribute, STATE 6796),
    (sym_subscript, STATE 6797), (sym_call, STATE 6768), (sym_type, STATE 10130),
    (sym_called_type, STATE 9093), (sym_function_type, STATE 9093), (sym_splat_type, STATE 9093),
    (sym_generic_type, STATE 8287), (sym_union_type, STATE 9093),
    (sym_intersection_type, STATE 9093), (sym__intersection_operand, STATE 12294),
    (sym_constrained_type, STATE 9093), (sym_member_type, STATE 8165),
    (sym_mlir_type, STATE 7017), (sym_list, STATE 7017), (sym_set, STATE 7017),
    (sym_tuple, STATE 7017), (sym_dictionary, STATE 7017), (sym_struct_literal, STATE 7017),
    (sym_list_comprehension, STATE 7017), (sym_dictionary_comprehension, STATE 7017),
    (sym_set_comprehension, STATE 7017), (sym_generator_expression, STATE 7017),
    (sym_parenthesized_expression, STATE 7017), (sym_conditional_expression, STATE 7969),
    (sym_concatenated_string, STATE 7017), (sym_string, STATE 6729), (sym_await, STATE 7017),
    (sym_identifier, ACTIONS 327), (anon_sym_import, ACTIONS 11), (anon_sym_from, ACTIONS 13),
    (anon_sym_LPAREN, ACTIONS 329), (anon_sym_STAR, ACTIONS 331), (anon_sym_print, ACTIONS 333),
    (anon_sym_comptime, ACTIONS 335), (anon_sym_assert, ACTIONS 23),
    (anon_sym___comptime_assert, ACTIONS 25), (anon_sym_return, ACTIONS 27),
    (anon_sym_del, ACTIONS 29), (anon_sym_raise, ACTIONS 31), (anon_sym_pass, ACTIONS 33),
    (anon_sym_break, ACTIONS 35), (anon_sym_continue, ACTIONS 37), (anon_sym_match, ACTIONS 337),
    (anon_sym_async, ACTIONS 339), (anon_sym_def, ACTIONS 341), (anon_sym_LBRACK, ACTIONS 343),
    (anon_sym_LBRACE, ACTIONS 61), (anon_sym_STAR_STAR, ACTIONS 345),
    (anon_sym_global, ACTIONS 63), (anon_sym_nonlocal, ACTIONS 65), (anon_sym_exec, ACTIONS 347),
    (anon_sym_type, ACTIONS 349), (anon_sym_mut, ACTIONS 339), (anon_sym_out, ACTIONS 339),
    (anon_sym_DASH, ACTIONS 79), (anon_sym_PLUS, ACTIONS 79), (anon_sym_ref, ACTIONS 81),
    (anon_sym_var, ACTIONS 81), (anon_sym_not, ACTIONS 83), (anon_sym_TILDE, ACTIONS 79),
    (anon_sym_lambda, ACTIONS 85), (anon_sym_yield, ACTIONS 87), (sym_ellipsis, ACTIONS 89),
    (anon_sym___mlir_type, ACTIONS 91), (sym_integer, ACTIONS 93), (sym_float, ACTIONS 89),
    (anon_sym_await, ACTIONS 351), (sym_true, ACTIONS 93), (sym_false, ACTIONS 93),
    (sym_none, ACTIONS 93), (sym_comment, ACTIONS 3), (sym_line_continuation, ACTIONS 3),
    (sym__newline, ACTIONS 1321), (sym__indent, ACTIONS 1323), (sym_string_start, ACTIONS 97)]"

definition parse_table_1172 :: "(nat \<times> nat) list" where "parse_table_1172 = [
    (sym__simple_statements, STATE 4714), (sym_import_statement, STATE 11814),
    (sym_future_import_statement, STATE 11814), (sym_import_from_statement, STATE 11814),
    (sym_print_statement, STATE 11814), (sym_assert_statement, STATE 11814),
    (sym_comptime_assert_statement, STATE 11814), (sym_expression_statement, STATE 11814),
    (sym_tuple_expression, STATE 12425), (sym_named_expression, STATE 7969),
    (sym__named_expression_lhs, STATE 12752), (sym_return_statement, STATE 11814),
    (sym_delete_statement, STATE 11814), (sym_raise_statement, STATE 11814),
    (sym_pass_statement, STATE 11814), (sym_break_statement, STATE 11814),
    (sym_continue_statement, STATE 11814), (sym_global_statement, STATE 11814),
    (sym_nonlocal_statement, STATE 11814), (sym_exec_statement, STATE 11814),
    (sym_type_alias_statement, STATE 11814), (sym_parameterized_alias_statement, STATE 11814),
    (sym_pattern, STATE 8086), (sym_tuple_pattern, STATE 8101), (sym_list_pattern, STATE 8101),
    (sym_list_splat_pattern, STATE 6795), (sym_as_pattern, STATE 7969),
    (sym_expression, STATE 9623), (sym_primary_expression, STATE 7326),
    (sym_comptime_expression, STATE 7017), (sym_transfer_expression, STATE 7017),
    (sym_not_operator, STATE 7969), (sym_boolean_operator, STATE 7969),
    (sym_binary_operator, STATE 7017), (sym_unary_operator, STATE 7017),
    (sym_comparison_operator, STATE 7969), (sym_lambda, STATE 7969),
    (sym_assignment, STATE 12425), (sym_augmented_assignment, STATE 12425),
    (sym_pattern_list, STATE 8578), (sym_yield, STATE 12425), (sym_attribute, STATE 6796),
    (sym_subscript, STATE 6797), (sym_call, STATE 6768), (sym_type, STATE 10130),
    (sym_called_type, STATE 9093), (sym_function_type, STATE 9093), (sym_splat_type, STATE 9093),
    (sym_generic_type, STATE 8287), (sym_union_type, STATE 9093),
    (sym_intersection_type, STATE 9093), (sym__intersection_operand, STATE 12294),
    (sym_constrained_type, STATE 9093), (sym_member_type, STATE 8165),
    (sym_mlir_type, STATE 7017), (sym_list, STATE 7017), (sym_set, STATE 7017),
    (sym_tuple, STATE 7017), (sym_dictionary, STATE 7017), (sym_struct_literal, STATE 7017),
    (sym_list_comprehension, STATE 7017), (sym_dictionary_comprehension, STATE 7017),
    (sym_set_comprehension, STATE 7017), (sym_generator_expression, STATE 7017),
    (sym_parenthesized_expression, STATE 7017), (sym_conditional_expression, STATE 7969),
    (sym_concatenated_string, STATE 7017), (sym_string, STATE 6729), (sym_await, STATE 7017),
    (sym_identifier, ACTIONS 327), (anon_sym_import, ACTIONS 11), (anon_sym_from, ACTIONS 13),
    (anon_sym_LPAREN, ACTIONS 329), (anon_sym_STAR, ACTIONS 331), (anon_sym_print, ACTIONS 333),
    (anon_sym_comptime, ACTIONS 335), (anon_sym_assert, ACTIONS 23),
    (anon_sym___comptime_assert, ACTIONS 25), (anon_sym_return, ACTIONS 27),
    (anon_sym_del, ACTIONS 29), (anon_sym_raise, ACTIONS 31), (anon_sym_pass, ACTIONS 33),
    (anon_sym_break, ACTIONS 35), (anon_sym_continue, ACTIONS 37), (anon_sym_match, ACTIONS 337),
    (anon_sym_async, ACTIONS 339), (anon_sym_def, ACTIONS 341), (anon_sym_LBRACK, ACTIONS 343),
    (anon_sym_LBRACE, ACTIONS 61), (anon_sym_STAR_STAR, ACTIONS 345),
    (anon_sym_global, ACTIONS 63), (anon_sym_nonlocal, ACTIONS 65), (anon_sym_exec, ACTIONS 347),
    (anon_sym_type, ACTIONS 349), (anon_sym_mut, ACTIONS 339), (anon_sym_out, ACTIONS 339),
    (anon_sym_DASH, ACTIONS 79), (anon_sym_PLUS, ACTIONS 79), (anon_sym_ref, ACTIONS 81),
    (anon_sym_var, ACTIONS 81), (anon_sym_not, ACTIONS 83), (anon_sym_TILDE, ACTIONS 79),
    (anon_sym_lambda, ACTIONS 85), (anon_sym_yield, ACTIONS 87), (sym_ellipsis, ACTIONS 89),
    (anon_sym___mlir_type, ACTIONS 91), (sym_integer, ACTIONS 93), (sym_float, ACTIONS 89),
    (anon_sym_await, ACTIONS 351), (sym_true, ACTIONS 93), (sym_false, ACTIONS 93),
    (sym_none, ACTIONS 93), (sym_comment, ACTIONS 3), (sym_line_continuation, ACTIONS 3),
    (sym__newline, ACTIONS 1325), (sym__indent, ACTIONS 1327), (sym_string_start, ACTIONS 97)]"

definition parse_table_1173 :: "(nat \<times> nat) list" where "parse_table_1173 = [
    (sym__simple_statements, STATE 5909), (sym_import_statement, STATE 11814),
    (sym_future_import_statement, STATE 11814), (sym_import_from_statement, STATE 11814),
    (sym_print_statement, STATE 11814), (sym_assert_statement, STATE 11814),
    (sym_comptime_assert_statement, STATE 11814), (sym_expression_statement, STATE 11814),
    (sym_tuple_expression, STATE 12425), (sym_named_expression, STATE 7969),
    (sym__named_expression_lhs, STATE 12752), (sym_return_statement, STATE 11814),
    (sym_delete_statement, STATE 11814), (sym_raise_statement, STATE 11814),
    (sym_pass_statement, STATE 11814), (sym_break_statement, STATE 11814),
    (sym_continue_statement, STATE 11814), (sym_global_statement, STATE 11814),
    (sym_nonlocal_statement, STATE 11814), (sym_exec_statement, STATE 11814),
    (sym_type_alias_statement, STATE 11814), (sym_parameterized_alias_statement, STATE 11814),
    (sym_pattern, STATE 8086), (sym_tuple_pattern, STATE 8101), (sym_list_pattern, STATE 8101),
    (sym_list_splat_pattern, STATE 6795), (sym_as_pattern, STATE 7969),
    (sym_expression, STATE 9623), (sym_primary_expression, STATE 7326),
    (sym_comptime_expression, STATE 7017), (sym_transfer_expression, STATE 7017),
    (sym_not_operator, STATE 7969), (sym_boolean_operator, STATE 7969),
    (sym_binary_operator, STATE 7017), (sym_unary_operator, STATE 7017),
    (sym_comparison_operator, STATE 7969), (sym_lambda, STATE 7969),
    (sym_assignment, STATE 12425), (sym_augmented_assignment, STATE 12425),
    (sym_pattern_list, STATE 8578), (sym_yield, STATE 12425), (sym_attribute, STATE 6796),
    (sym_subscript, STATE 6797), (sym_call, STATE 6768), (sym_type, STATE 10130),
    (sym_called_type, STATE 9093), (sym_function_type, STATE 9093), (sym_splat_type, STATE 9093),
    (sym_generic_type, STATE 8287), (sym_union_type, STATE 9093),
    (sym_intersection_type, STATE 9093), (sym__intersection_operand, STATE 12294),
    (sym_constrained_type, STATE 9093), (sym_member_type, STATE 8165),
    (sym_mlir_type, STATE 7017), (sym_list, STATE 7017), (sym_set, STATE 7017),
    (sym_tuple, STATE 7017), (sym_dictionary, STATE 7017), (sym_struct_literal, STATE 7017),
    (sym_list_comprehension, STATE 7017), (sym_dictionary_comprehension, STATE 7017),
    (sym_set_comprehension, STATE 7017), (sym_generator_expression, STATE 7017),
    (sym_parenthesized_expression, STATE 7017), (sym_conditional_expression, STATE 7969),
    (sym_concatenated_string, STATE 7017), (sym_string, STATE 6729), (sym_await, STATE 7017),
    (sym_identifier, ACTIONS 327), (anon_sym_import, ACTIONS 11), (anon_sym_from, ACTIONS 13),
    (anon_sym_LPAREN, ACTIONS 329), (anon_sym_STAR, ACTIONS 331), (anon_sym_print, ACTIONS 333),
    (anon_sym_comptime, ACTIONS 335), (anon_sym_assert, ACTIONS 23),
    (anon_sym___comptime_assert, ACTIONS 25), (anon_sym_return, ACTIONS 27),
    (anon_sym_del, ACTIONS 29), (anon_sym_raise, ACTIONS 31), (anon_sym_pass, ACTIONS 33),
    (anon_sym_break, ACTIONS 35), (anon_sym_continue, ACTIONS 37), (anon_sym_match, ACTIONS 337),
    (anon_sym_async, ACTIONS 339), (anon_sym_def, ACTIONS 341), (anon_sym_LBRACK, ACTIONS 343),
    (anon_sym_LBRACE, ACTIONS 61), (anon_sym_STAR_STAR, ACTIONS 345),
    (anon_sym_global, ACTIONS 63), (anon_sym_nonlocal, ACTIONS 65), (anon_sym_exec, ACTIONS 347),
    (anon_sym_type, ACTIONS 349), (anon_sym_mut, ACTIONS 339), (anon_sym_out, ACTIONS 339),
    (anon_sym_DASH, ACTIONS 79), (anon_sym_PLUS, ACTIONS 79), (anon_sym_ref, ACTIONS 81),
    (anon_sym_var, ACTIONS 81), (anon_sym_not, ACTIONS 83), (anon_sym_TILDE, ACTIONS 79),
    (anon_sym_lambda, ACTIONS 85), (anon_sym_yield, ACTIONS 87), (sym_ellipsis, ACTIONS 89),
    (anon_sym___mlir_type, ACTIONS 91), (sym_integer, ACTIONS 93), (sym_float, ACTIONS 89),
    (anon_sym_await, ACTIONS 351), (sym_true, ACTIONS 93), (sym_false, ACTIONS 93),
    (sym_none, ACTIONS 93), (sym_comment, ACTIONS 3), (sym_line_continuation, ACTIONS 3),
    (sym__newline, ACTIONS 1329), (sym__indent, ACTIONS 1331), (sym_string_start, ACTIONS 97)]"

definition parse_table_1174 :: "(nat \<times> nat) list" where "parse_table_1174 = [
    (sym__simple_statements, STATE 5184), (sym_import_statement, STATE 12239),
    (sym_future_import_statement, STATE 12239), (sym_import_from_statement, STATE 12239),
    (sym_print_statement, STATE 12239), (sym_assert_statement, STATE 12239),
    (sym_comptime_assert_statement, STATE 12239), (sym_expression_statement, STATE 12239),
    (sym_tuple_expression, STATE 12425), (sym_named_expression, STATE 7969),
    (sym__named_expression_lhs, STATE 12752), (sym_return_statement, STATE 12239),
    (sym_delete_statement, STATE 12239), (sym_raise_statement, STATE 12239),
    (sym_pass_statement, STATE 12239), (sym_break_statement, STATE 12239),
    (sym_continue_statement, STATE 12239), (sym_global_statement, STATE 12239),
    (sym_nonlocal_statement, STATE 12239), (sym_exec_statement, STATE 12239),
    (sym_type_alias_statement, STATE 12239), (sym_parameterized_alias_statement, STATE 12239),
    (sym_pattern, STATE 8086), (sym_tuple_pattern, STATE 8101), (sym_list_pattern, STATE 8101),
    (sym_list_splat_pattern, STATE 6795), (sym_as_pattern, STATE 7969),
    (sym_expression, STATE 9623), (sym_primary_expression, STATE 7326),
    (sym_comptime_expression, STATE 7017), (sym_transfer_expression, STATE 7017),
    (sym_not_operator, STATE 7969), (sym_boolean_operator, STATE 7969),
    (sym_binary_operator, STATE 7017), (sym_unary_operator, STATE 7017),
    (sym_comparison_operator, STATE 7969), (sym_lambda, STATE 7969),
    (sym_assignment, STATE 12425), (sym_augmented_assignment, STATE 12425),
    (sym_pattern_list, STATE 8578), (sym_yield, STATE 12425), (sym_attribute, STATE 6796),
    (sym_subscript, STATE 6797), (sym_call, STATE 6768), (sym_type, STATE 10130),
    (sym_called_type, STATE 9093), (sym_function_type, STATE 9093), (sym_splat_type, STATE 9093),
    (sym_generic_type, STATE 8287), (sym_union_type, STATE 9093),
    (sym_intersection_type, STATE 9093), (sym__intersection_operand, STATE 12294),
    (sym_constrained_type, STATE 9093), (sym_member_type, STATE 8165),
    (sym_mlir_type, STATE 7017), (sym_list, STATE 7017), (sym_set, STATE 7017),
    (sym_tuple, STATE 7017), (sym_dictionary, STATE 7017), (sym_struct_literal, STATE 7017),
    (sym_list_comprehension, STATE 7017), (sym_dictionary_comprehension, STATE 7017),
    (sym_set_comprehension, STATE 7017), (sym_generator_expression, STATE 7017),
    (sym_parenthesized_expression, STATE 7017), (sym_conditional_expression, STATE 7969),
    (sym_concatenated_string, STATE 7017), (sym_string, STATE 6729), (sym_await, STATE 7017),
    (sym_identifier, ACTIONS 327), (anon_sym_import, ACTIONS 11), (anon_sym_from, ACTIONS 13),
    (anon_sym_LPAREN, ACTIONS 329), (anon_sym_STAR, ACTIONS 331), (anon_sym_print, ACTIONS 333),
    (anon_sym_comptime, ACTIONS 335), (anon_sym_assert, ACTIONS 23),
    (anon_sym___comptime_assert, ACTIONS 25), (anon_sym_return, ACTIONS 27),
    (anon_sym_del, ACTIONS 29), (anon_sym_raise, ACTIONS 31), (anon_sym_pass, ACTIONS 33),
    (anon_sym_break, ACTIONS 35), (anon_sym_continue, ACTIONS 37), (anon_sym_match, ACTIONS 337),
    (anon_sym_async, ACTIONS 339), (anon_sym_def, ACTIONS 341), (anon_sym_LBRACK, ACTIONS 343),
    (anon_sym_LBRACE, ACTIONS 61), (anon_sym_STAR_STAR, ACTIONS 345),
    (anon_sym_global, ACTIONS 63), (anon_sym_nonlocal, ACTIONS 65), (anon_sym_exec, ACTIONS 347),
    (anon_sym_type, ACTIONS 349), (anon_sym_mut, ACTIONS 339), (anon_sym_out, ACTIONS 339),
    (anon_sym_DASH, ACTIONS 79), (anon_sym_PLUS, ACTIONS 79), (anon_sym_ref, ACTIONS 81),
    (anon_sym_var, ACTIONS 81), (anon_sym_not, ACTIONS 83), (anon_sym_TILDE, ACTIONS 79),
    (anon_sym_lambda, ACTIONS 85), (anon_sym_yield, ACTIONS 87), (sym_ellipsis, ACTIONS 89),
    (anon_sym___mlir_type, ACTIONS 91), (sym_integer, ACTIONS 93), (sym_float, ACTIONS 89),
    (anon_sym_await, ACTIONS 351), (sym_true, ACTIONS 93), (sym_false, ACTIONS 93),
    (sym_none, ACTIONS 93), (sym_comment, ACTIONS 3), (sym_line_continuation, ACTIONS 3),
    (sym__newline, ACTIONS 1333), (sym__indent, ACTIONS 1335), (sym_string_start, ACTIONS 97)]"

definition parse_table_1175 :: "(nat \<times> nat) list" where "parse_table_1175 = [
    (sym__simple_statements, STATE 4388), (sym_import_statement, STATE 11814),
    (sym_future_import_statement, STATE 11814), (sym_import_from_statement, STATE 11814),
    (sym_print_statement, STATE 11814), (sym_assert_statement, STATE 11814),
    (sym_comptime_assert_statement, STATE 11814), (sym_expression_statement, STATE 11814),
    (sym_tuple_expression, STATE 12425), (sym_named_expression, STATE 7969),
    (sym__named_expression_lhs, STATE 12752), (sym_return_statement, STATE 11814),
    (sym_delete_statement, STATE 11814), (sym_raise_statement, STATE 11814),
    (sym_pass_statement, STATE 11814), (sym_break_statement, STATE 11814),
    (sym_continue_statement, STATE 11814), (sym_global_statement, STATE 11814),
    (sym_nonlocal_statement, STATE 11814), (sym_exec_statement, STATE 11814),
    (sym_type_alias_statement, STATE 11814), (sym_parameterized_alias_statement, STATE 11814),
    (sym_pattern, STATE 8086), (sym_tuple_pattern, STATE 8101), (sym_list_pattern, STATE 8101),
    (sym_list_splat_pattern, STATE 6795), (sym_as_pattern, STATE 7969),
    (sym_expression, STATE 9623), (sym_primary_expression, STATE 7326),
    (sym_comptime_expression, STATE 7017), (sym_transfer_expression, STATE 7017),
    (sym_not_operator, STATE 7969), (sym_boolean_operator, STATE 7969),
    (sym_binary_operator, STATE 7017), (sym_unary_operator, STATE 7017),
    (sym_comparison_operator, STATE 7969), (sym_lambda, STATE 7969),
    (sym_assignment, STATE 12425), (sym_augmented_assignment, STATE 12425),
    (sym_pattern_list, STATE 8578), (sym_yield, STATE 12425), (sym_attribute, STATE 6796),
    (sym_subscript, STATE 6797), (sym_call, STATE 6768), (sym_type, STATE 10130),
    (sym_called_type, STATE 9093), (sym_function_type, STATE 9093), (sym_splat_type, STATE 9093),
    (sym_generic_type, STATE 8287), (sym_union_type, STATE 9093),
    (sym_intersection_type, STATE 9093), (sym__intersection_operand, STATE 12294),
    (sym_constrained_type, STATE 9093), (sym_member_type, STATE 8165),
    (sym_mlir_type, STATE 7017), (sym_list, STATE 7017), (sym_set, STATE 7017),
    (sym_tuple, STATE 7017), (sym_dictionary, STATE 7017), (sym_struct_literal, STATE 7017),
    (sym_list_comprehension, STATE 7017), (sym_dictionary_comprehension, STATE 7017),
    (sym_set_comprehension, STATE 7017), (sym_generator_expression, STATE 7017),
    (sym_parenthesized_expression, STATE 7017), (sym_conditional_expression, STATE 7969),
    (sym_concatenated_string, STATE 7017), (sym_string, STATE 6729), (sym_await, STATE 7017),
    (sym_identifier, ACTIONS 327), (anon_sym_import, ACTIONS 11), (anon_sym_from, ACTIONS 13),
    (anon_sym_LPAREN, ACTIONS 329), (anon_sym_STAR, ACTIONS 331), (anon_sym_print, ACTIONS 333),
    (anon_sym_comptime, ACTIONS 335), (anon_sym_assert, ACTIONS 23),
    (anon_sym___comptime_assert, ACTIONS 25), (anon_sym_return, ACTIONS 27),
    (anon_sym_del, ACTIONS 29), (anon_sym_raise, ACTIONS 31), (anon_sym_pass, ACTIONS 33),
    (anon_sym_break, ACTIONS 35), (anon_sym_continue, ACTIONS 37), (anon_sym_match, ACTIONS 337),
    (anon_sym_async, ACTIONS 339), (anon_sym_def, ACTIONS 341), (anon_sym_LBRACK, ACTIONS 343),
    (anon_sym_LBRACE, ACTIONS 61), (anon_sym_STAR_STAR, ACTIONS 345),
    (anon_sym_global, ACTIONS 63), (anon_sym_nonlocal, ACTIONS 65), (anon_sym_exec, ACTIONS 347),
    (anon_sym_type, ACTIONS 349), (anon_sym_mut, ACTIONS 339), (anon_sym_out, ACTIONS 339),
    (anon_sym_DASH, ACTIONS 79), (anon_sym_PLUS, ACTIONS 79), (anon_sym_ref, ACTIONS 81),
    (anon_sym_var, ACTIONS 81), (anon_sym_not, ACTIONS 83), (anon_sym_TILDE, ACTIONS 79),
    (anon_sym_lambda, ACTIONS 85), (anon_sym_yield, ACTIONS 87), (sym_ellipsis, ACTIONS 89),
    (anon_sym___mlir_type, ACTIONS 91), (sym_integer, ACTIONS 93), (sym_float, ACTIONS 89),
    (anon_sym_await, ACTIONS 351), (sym_true, ACTIONS 93), (sym_false, ACTIONS 93),
    (sym_none, ACTIONS 93), (sym_comment, ACTIONS 3), (sym_line_continuation, ACTIONS 3),
    (sym__newline, ACTIONS 1337), (sym__indent, ACTIONS 1339), (sym_string_start, ACTIONS 97)]"

definition parse_table_1176 :: "(nat \<times> nat) list" where "parse_table_1176 = [
    (sym__simple_statements, STATE 5507), (sym_import_statement, STATE 12239),
    (sym_future_import_statement, STATE 12239), (sym_import_from_statement, STATE 12239),
    (sym_print_statement, STATE 12239), (sym_assert_statement, STATE 12239),
    (sym_comptime_assert_statement, STATE 12239), (sym_expression_statement, STATE 12239),
    (sym_tuple_expression, STATE 12425), (sym_named_expression, STATE 7969),
    (sym__named_expression_lhs, STATE 12752), (sym_return_statement, STATE 12239),
    (sym_delete_statement, STATE 12239), (sym_raise_statement, STATE 12239),
    (sym_pass_statement, STATE 12239), (sym_break_statement, STATE 12239),
    (sym_continue_statement, STATE 12239), (sym_global_statement, STATE 12239),
    (sym_nonlocal_statement, STATE 12239), (sym_exec_statement, STATE 12239),
    (sym_type_alias_statement, STATE 12239), (sym_parameterized_alias_statement, STATE 12239),
    (sym_pattern, STATE 8086), (sym_tuple_pattern, STATE 8101), (sym_list_pattern, STATE 8101),
    (sym_list_splat_pattern, STATE 6795), (sym_as_pattern, STATE 7969),
    (sym_expression, STATE 9623), (sym_primary_expression, STATE 7326),
    (sym_comptime_expression, STATE 7017), (sym_transfer_expression, STATE 7017),
    (sym_not_operator, STATE 7969), (sym_boolean_operator, STATE 7969),
    (sym_binary_operator, STATE 7017), (sym_unary_operator, STATE 7017),
    (sym_comparison_operator, STATE 7969), (sym_lambda, STATE 7969),
    (sym_assignment, STATE 12425), (sym_augmented_assignment, STATE 12425),
    (sym_pattern_list, STATE 8578), (sym_yield, STATE 12425), (sym_attribute, STATE 6796),
    (sym_subscript, STATE 6797), (sym_call, STATE 6768), (sym_type, STATE 10130),
    (sym_called_type, STATE 9093), (sym_function_type, STATE 9093), (sym_splat_type, STATE 9093),
    (sym_generic_type, STATE 8287), (sym_union_type, STATE 9093),
    (sym_intersection_type, STATE 9093), (sym__intersection_operand, STATE 12294),
    (sym_constrained_type, STATE 9093), (sym_member_type, STATE 8165),
    (sym_mlir_type, STATE 7017), (sym_list, STATE 7017), (sym_set, STATE 7017),
    (sym_tuple, STATE 7017), (sym_dictionary, STATE 7017), (sym_struct_literal, STATE 7017),
    (sym_list_comprehension, STATE 7017), (sym_dictionary_comprehension, STATE 7017),
    (sym_set_comprehension, STATE 7017), (sym_generator_expression, STATE 7017),
    (sym_parenthesized_expression, STATE 7017), (sym_conditional_expression, STATE 7969),
    (sym_concatenated_string, STATE 7017), (sym_string, STATE 6729), (sym_await, STATE 7017),
    (sym_identifier, ACTIONS 327), (anon_sym_import, ACTIONS 11), (anon_sym_from, ACTIONS 13),
    (anon_sym_LPAREN, ACTIONS 329), (anon_sym_STAR, ACTIONS 331), (anon_sym_print, ACTIONS 333),
    (anon_sym_comptime, ACTIONS 335), (anon_sym_assert, ACTIONS 23),
    (anon_sym___comptime_assert, ACTIONS 25), (anon_sym_return, ACTIONS 27),
    (anon_sym_del, ACTIONS 29), (anon_sym_raise, ACTIONS 31), (anon_sym_pass, ACTIONS 33),
    (anon_sym_break, ACTIONS 35), (anon_sym_continue, ACTIONS 37), (anon_sym_match, ACTIONS 337),
    (anon_sym_async, ACTIONS 339), (anon_sym_def, ACTIONS 341), (anon_sym_LBRACK, ACTIONS 343),
    (anon_sym_LBRACE, ACTIONS 61), (anon_sym_STAR_STAR, ACTIONS 345),
    (anon_sym_global, ACTIONS 63), (anon_sym_nonlocal, ACTIONS 65), (anon_sym_exec, ACTIONS 347),
    (anon_sym_type, ACTIONS 349), (anon_sym_mut, ACTIONS 339), (anon_sym_out, ACTIONS 339),
    (anon_sym_DASH, ACTIONS 79), (anon_sym_PLUS, ACTIONS 79), (anon_sym_ref, ACTIONS 81),
    (anon_sym_var, ACTIONS 81), (anon_sym_not, ACTIONS 83), (anon_sym_TILDE, ACTIONS 79),
    (anon_sym_lambda, ACTIONS 85), (anon_sym_yield, ACTIONS 87), (sym_ellipsis, ACTIONS 89),
    (anon_sym___mlir_type, ACTIONS 91), (sym_integer, ACTIONS 93), (sym_float, ACTIONS 89),
    (anon_sym_await, ACTIONS 351), (sym_true, ACTIONS 93), (sym_false, ACTIONS 93),
    (sym_none, ACTIONS 93), (sym_comment, ACTIONS 3), (sym_line_continuation, ACTIONS 3),
    (sym__newline, ACTIONS 1341), (sym__indent, ACTIONS 1343), (sym_string_start, ACTIONS 97)]"

definition parse_table_1177 :: "(nat \<times> nat) list" where "parse_table_1177 = [
    (sym__simple_statements, STATE 4686), (sym_import_statement, STATE 12239),
    (sym_future_import_statement, STATE 12239), (sym_import_from_statement, STATE 12239),
    (sym_print_statement, STATE 12239), (sym_assert_statement, STATE 12239),
    (sym_comptime_assert_statement, STATE 12239), (sym_expression_statement, STATE 12239),
    (sym_tuple_expression, STATE 12425), (sym_named_expression, STATE 7969),
    (sym__named_expression_lhs, STATE 12752), (sym_return_statement, STATE 12239),
    (sym_delete_statement, STATE 12239), (sym_raise_statement, STATE 12239),
    (sym_pass_statement, STATE 12239), (sym_break_statement, STATE 12239),
    (sym_continue_statement, STATE 12239), (sym_global_statement, STATE 12239),
    (sym_nonlocal_statement, STATE 12239), (sym_exec_statement, STATE 12239),
    (sym_type_alias_statement, STATE 12239), (sym_parameterized_alias_statement, STATE 12239),
    (sym_pattern, STATE 8086), (sym_tuple_pattern, STATE 8101), (sym_list_pattern, STATE 8101),
    (sym_list_splat_pattern, STATE 6795), (sym_as_pattern, STATE 7969),
    (sym_expression, STATE 9623), (sym_primary_expression, STATE 7326),
    (sym_comptime_expression, STATE 7017), (sym_transfer_expression, STATE 7017),
    (sym_not_operator, STATE 7969), (sym_boolean_operator, STATE 7969),
    (sym_binary_operator, STATE 7017), (sym_unary_operator, STATE 7017),
    (sym_comparison_operator, STATE 7969), (sym_lambda, STATE 7969),
    (sym_assignment, STATE 12425), (sym_augmented_assignment, STATE 12425),
    (sym_pattern_list, STATE 8578), (sym_yield, STATE 12425), (sym_attribute, STATE 6796),
    (sym_subscript, STATE 6797), (sym_call, STATE 6768), (sym_type, STATE 10130),
    (sym_called_type, STATE 9093), (sym_function_type, STATE 9093), (sym_splat_type, STATE 9093),
    (sym_generic_type, STATE 8287), (sym_union_type, STATE 9093),
    (sym_intersection_type, STATE 9093), (sym__intersection_operand, STATE 12294),
    (sym_constrained_type, STATE 9093), (sym_member_type, STATE 8165),
    (sym_mlir_type, STATE 7017), (sym_list, STATE 7017), (sym_set, STATE 7017),
    (sym_tuple, STATE 7017), (sym_dictionary, STATE 7017), (sym_struct_literal, STATE 7017),
    (sym_list_comprehension, STATE 7017), (sym_dictionary_comprehension, STATE 7017),
    (sym_set_comprehension, STATE 7017), (sym_generator_expression, STATE 7017),
    (sym_parenthesized_expression, STATE 7017), (sym_conditional_expression, STATE 7969),
    (sym_concatenated_string, STATE 7017), (sym_string, STATE 6729), (sym_await, STATE 7017),
    (sym_identifier, ACTIONS 327), (anon_sym_import, ACTIONS 11), (anon_sym_from, ACTIONS 13),
    (anon_sym_LPAREN, ACTIONS 329), (anon_sym_STAR, ACTIONS 331), (anon_sym_print, ACTIONS 333),
    (anon_sym_comptime, ACTIONS 335), (anon_sym_assert, ACTIONS 23),
    (anon_sym___comptime_assert, ACTIONS 25), (anon_sym_return, ACTIONS 27),
    (anon_sym_del, ACTIONS 29), (anon_sym_raise, ACTIONS 31), (anon_sym_pass, ACTIONS 33),
    (anon_sym_break, ACTIONS 35), (anon_sym_continue, ACTIONS 37), (anon_sym_match, ACTIONS 337),
    (anon_sym_async, ACTIONS 339), (anon_sym_def, ACTIONS 341), (anon_sym_LBRACK, ACTIONS 343),
    (anon_sym_LBRACE, ACTIONS 61), (anon_sym_STAR_STAR, ACTIONS 345),
    (anon_sym_global, ACTIONS 63), (anon_sym_nonlocal, ACTIONS 65), (anon_sym_exec, ACTIONS 347),
    (anon_sym_type, ACTIONS 349), (anon_sym_mut, ACTIONS 339), (anon_sym_out, ACTIONS 339),
    (anon_sym_DASH, ACTIONS 79), (anon_sym_PLUS, ACTIONS 79), (anon_sym_ref, ACTIONS 81),
    (anon_sym_var, ACTIONS 81), (anon_sym_not, ACTIONS 83), (anon_sym_TILDE, ACTIONS 79),
    (anon_sym_lambda, ACTIONS 85), (anon_sym_yield, ACTIONS 87), (sym_ellipsis, ACTIONS 89),
    (anon_sym___mlir_type, ACTIONS 91), (sym_integer, ACTIONS 93), (sym_float, ACTIONS 89),
    (anon_sym_await, ACTIONS 351), (sym_true, ACTIONS 93), (sym_false, ACTIONS 93),
    (sym_none, ACTIONS 93), (sym_comment, ACTIONS 3), (sym_line_continuation, ACTIONS 3),
    (sym__newline, ACTIONS 1345), (sym__indent, ACTIONS 1347), (sym_string_start, ACTIONS 97)]"

definition parse_table_1178 :: "(nat \<times> nat) list" where "parse_table_1178 = [
    (sym__simple_statements, STATE 4962), (sym_import_statement, STATE 12239),
    (sym_future_import_statement, STATE 12239), (sym_import_from_statement, STATE 12239),
    (sym_print_statement, STATE 12239), (sym_assert_statement, STATE 12239),
    (sym_comptime_assert_statement, STATE 12239), (sym_expression_statement, STATE 12239),
    (sym_tuple_expression, STATE 12425), (sym_named_expression, STATE 7969),
    (sym__named_expression_lhs, STATE 12752), (sym_return_statement, STATE 12239),
    (sym_delete_statement, STATE 12239), (sym_raise_statement, STATE 12239),
    (sym_pass_statement, STATE 12239), (sym_break_statement, STATE 12239),
    (sym_continue_statement, STATE 12239), (sym_global_statement, STATE 12239),
    (sym_nonlocal_statement, STATE 12239), (sym_exec_statement, STATE 12239),
    (sym_type_alias_statement, STATE 12239), (sym_parameterized_alias_statement, STATE 12239),
    (sym_pattern, STATE 8086), (sym_tuple_pattern, STATE 8101), (sym_list_pattern, STATE 8101),
    (sym_list_splat_pattern, STATE 6795), (sym_as_pattern, STATE 7969),
    (sym_expression, STATE 9623), (sym_primary_expression, STATE 7326),
    (sym_comptime_expression, STATE 7017), (sym_transfer_expression, STATE 7017),
    (sym_not_operator, STATE 7969), (sym_boolean_operator, STATE 7969),
    (sym_binary_operator, STATE 7017), (sym_unary_operator, STATE 7017),
    (sym_comparison_operator, STATE 7969), (sym_lambda, STATE 7969),
    (sym_assignment, STATE 12425), (sym_augmented_assignment, STATE 12425),
    (sym_pattern_list, STATE 8578), (sym_yield, STATE 12425), (sym_attribute, STATE 6796),
    (sym_subscript, STATE 6797), (sym_call, STATE 6768), (sym_type, STATE 10130),
    (sym_called_type, STATE 9093), (sym_function_type, STATE 9093), (sym_splat_type, STATE 9093),
    (sym_generic_type, STATE 8287), (sym_union_type, STATE 9093),
    (sym_intersection_type, STATE 9093), (sym__intersection_operand, STATE 12294),
    (sym_constrained_type, STATE 9093), (sym_member_type, STATE 8165),
    (sym_mlir_type, STATE 7017), (sym_list, STATE 7017), (sym_set, STATE 7017),
    (sym_tuple, STATE 7017), (sym_dictionary, STATE 7017), (sym_struct_literal, STATE 7017),
    (sym_list_comprehension, STATE 7017), (sym_dictionary_comprehension, STATE 7017),
    (sym_set_comprehension, STATE 7017), (sym_generator_expression, STATE 7017),
    (sym_parenthesized_expression, STATE 7017), (sym_conditional_expression, STATE 7969),
    (sym_concatenated_string, STATE 7017), (sym_string, STATE 6729), (sym_await, STATE 7017),
    (sym_identifier, ACTIONS 327), (anon_sym_import, ACTIONS 11), (anon_sym_from, ACTIONS 13),
    (anon_sym_LPAREN, ACTIONS 329), (anon_sym_STAR, ACTIONS 331), (anon_sym_print, ACTIONS 333),
    (anon_sym_comptime, ACTIONS 335), (anon_sym_assert, ACTIONS 23),
    (anon_sym___comptime_assert, ACTIONS 25), (anon_sym_return, ACTIONS 27),
    (anon_sym_del, ACTIONS 29), (anon_sym_raise, ACTIONS 31), (anon_sym_pass, ACTIONS 33),
    (anon_sym_break, ACTIONS 35), (anon_sym_continue, ACTIONS 37), (anon_sym_match, ACTIONS 337),
    (anon_sym_async, ACTIONS 339), (anon_sym_def, ACTIONS 341), (anon_sym_LBRACK, ACTIONS 343),
    (anon_sym_LBRACE, ACTIONS 61), (anon_sym_STAR_STAR, ACTIONS 345),
    (anon_sym_global, ACTIONS 63), (anon_sym_nonlocal, ACTIONS 65), (anon_sym_exec, ACTIONS 347),
    (anon_sym_type, ACTIONS 349), (anon_sym_mut, ACTIONS 339), (anon_sym_out, ACTIONS 339),
    (anon_sym_DASH, ACTIONS 79), (anon_sym_PLUS, ACTIONS 79), (anon_sym_ref, ACTIONS 81),
    (anon_sym_var, ACTIONS 81), (anon_sym_not, ACTIONS 83), (anon_sym_TILDE, ACTIONS 79),
    (anon_sym_lambda, ACTIONS 85), (anon_sym_yield, ACTIONS 87), (sym_ellipsis, ACTIONS 89),
    (anon_sym___mlir_type, ACTIONS 91), (sym_integer, ACTIONS 93), (sym_float, ACTIONS 89),
    (anon_sym_await, ACTIONS 351), (sym_true, ACTIONS 93), (sym_false, ACTIONS 93),
    (sym_none, ACTIONS 93), (sym_comment, ACTIONS 3), (sym_line_continuation, ACTIONS 3),
    (sym__newline, ACTIONS 1349), (sym__indent, ACTIONS 1351), (sym_string_start, ACTIONS 97)]"

definition parse_table_1179 :: "(nat \<times> nat) list" where "parse_table_1179 = [
    (sym__simple_statements, STATE 4736), (sym_import_statement, STATE 11814),
    (sym_future_import_statement, STATE 11814), (sym_import_from_statement, STATE 11814),
    (sym_print_statement, STATE 11814), (sym_assert_statement, STATE 11814),
    (sym_comptime_assert_statement, STATE 11814), (sym_expression_statement, STATE 11814),
    (sym_tuple_expression, STATE 12425), (sym_named_expression, STATE 7969),
    (sym__named_expression_lhs, STATE 12752), (sym_return_statement, STATE 11814),
    (sym_delete_statement, STATE 11814), (sym_raise_statement, STATE 11814),
    (sym_pass_statement, STATE 11814), (sym_break_statement, STATE 11814),
    (sym_continue_statement, STATE 11814), (sym_global_statement, STATE 11814),
    (sym_nonlocal_statement, STATE 11814), (sym_exec_statement, STATE 11814),
    (sym_type_alias_statement, STATE 11814), (sym_parameterized_alias_statement, STATE 11814),
    (sym_pattern, STATE 8086), (sym_tuple_pattern, STATE 8101), (sym_list_pattern, STATE 8101),
    (sym_list_splat_pattern, STATE 6795), (sym_as_pattern, STATE 7969),
    (sym_expression, STATE 9623), (sym_primary_expression, STATE 7326),
    (sym_comptime_expression, STATE 7017), (sym_transfer_expression, STATE 7017),
    (sym_not_operator, STATE 7969), (sym_boolean_operator, STATE 7969),
    (sym_binary_operator, STATE 7017), (sym_unary_operator, STATE 7017),
    (sym_comparison_operator, STATE 7969), (sym_lambda, STATE 7969),
    (sym_assignment, STATE 12425), (sym_augmented_assignment, STATE 12425),
    (sym_pattern_list, STATE 8578), (sym_yield, STATE 12425), (sym_attribute, STATE 6796),
    (sym_subscript, STATE 6797), (sym_call, STATE 6768), (sym_type, STATE 10130),
    (sym_called_type, STATE 9093), (sym_function_type, STATE 9093), (sym_splat_type, STATE 9093),
    (sym_generic_type, STATE 8287), (sym_union_type, STATE 9093),
    (sym_intersection_type, STATE 9093), (sym__intersection_operand, STATE 12294),
    (sym_constrained_type, STATE 9093), (sym_member_type, STATE 8165),
    (sym_mlir_type, STATE 7017), (sym_list, STATE 7017), (sym_set, STATE 7017),
    (sym_tuple, STATE 7017), (sym_dictionary, STATE 7017), (sym_struct_literal, STATE 7017),
    (sym_list_comprehension, STATE 7017), (sym_dictionary_comprehension, STATE 7017),
    (sym_set_comprehension, STATE 7017), (sym_generator_expression, STATE 7017),
    (sym_parenthesized_expression, STATE 7017), (sym_conditional_expression, STATE 7969),
    (sym_concatenated_string, STATE 7017), (sym_string, STATE 6729), (sym_await, STATE 7017),
    (sym_identifier, ACTIONS 327), (anon_sym_import, ACTIONS 11), (anon_sym_from, ACTIONS 13),
    (anon_sym_LPAREN, ACTIONS 329), (anon_sym_STAR, ACTIONS 331), (anon_sym_print, ACTIONS 333),
    (anon_sym_comptime, ACTIONS 335), (anon_sym_assert, ACTIONS 23),
    (anon_sym___comptime_assert, ACTIONS 25), (anon_sym_return, ACTIONS 27),
    (anon_sym_del, ACTIONS 29), (anon_sym_raise, ACTIONS 31), (anon_sym_pass, ACTIONS 33),
    (anon_sym_break, ACTIONS 35), (anon_sym_continue, ACTIONS 37), (anon_sym_match, ACTIONS 337),
    (anon_sym_async, ACTIONS 339), (anon_sym_def, ACTIONS 341), (anon_sym_LBRACK, ACTIONS 343),
    (anon_sym_LBRACE, ACTIONS 61), (anon_sym_STAR_STAR, ACTIONS 345),
    (anon_sym_global, ACTIONS 63), (anon_sym_nonlocal, ACTIONS 65), (anon_sym_exec, ACTIONS 347),
    (anon_sym_type, ACTIONS 349), (anon_sym_mut, ACTIONS 339), (anon_sym_out, ACTIONS 339),
    (anon_sym_DASH, ACTIONS 79), (anon_sym_PLUS, ACTIONS 79), (anon_sym_ref, ACTIONS 81),
    (anon_sym_var, ACTIONS 81), (anon_sym_not, ACTIONS 83), (anon_sym_TILDE, ACTIONS 79),
    (anon_sym_lambda, ACTIONS 85), (anon_sym_yield, ACTIONS 87), (sym_ellipsis, ACTIONS 89),
    (anon_sym___mlir_type, ACTIONS 91), (sym_integer, ACTIONS 93), (sym_float, ACTIONS 89),
    (anon_sym_await, ACTIONS 351), (sym_true, ACTIONS 93), (sym_false, ACTIONS 93),
    (sym_none, ACTIONS 93), (sym_comment, ACTIONS 3), (sym_line_continuation, ACTIONS 3),
    (sym__newline, ACTIONS 1353), (sym__indent, ACTIONS 1355), (sym_string_start, ACTIONS 97)]"

definition parse_table_1180 :: "(nat \<times> nat) list" where "parse_table_1180 = [
    (sym__simple_statements, STATE 4738), (sym_import_statement, STATE 11814),
    (sym_future_import_statement, STATE 11814), (sym_import_from_statement, STATE 11814),
    (sym_print_statement, STATE 11814), (sym_assert_statement, STATE 11814),
    (sym_comptime_assert_statement, STATE 11814), (sym_expression_statement, STATE 11814),
    (sym_tuple_expression, STATE 12425), (sym_named_expression, STATE 7969),
    (sym__named_expression_lhs, STATE 12752), (sym_return_statement, STATE 11814),
    (sym_delete_statement, STATE 11814), (sym_raise_statement, STATE 11814),
    (sym_pass_statement, STATE 11814), (sym_break_statement, STATE 11814),
    (sym_continue_statement, STATE 11814), (sym_global_statement, STATE 11814),
    (sym_nonlocal_statement, STATE 11814), (sym_exec_statement, STATE 11814),
    (sym_type_alias_statement, STATE 11814), (sym_parameterized_alias_statement, STATE 11814),
    (sym_pattern, STATE 8086), (sym_tuple_pattern, STATE 8101), (sym_list_pattern, STATE 8101),
    (sym_list_splat_pattern, STATE 6795), (sym_as_pattern, STATE 7969),
    (sym_expression, STATE 9623), (sym_primary_expression, STATE 7326),
    (sym_comptime_expression, STATE 7017), (sym_transfer_expression, STATE 7017),
    (sym_not_operator, STATE 7969), (sym_boolean_operator, STATE 7969),
    (sym_binary_operator, STATE 7017), (sym_unary_operator, STATE 7017),
    (sym_comparison_operator, STATE 7969), (sym_lambda, STATE 7969),
    (sym_assignment, STATE 12425), (sym_augmented_assignment, STATE 12425),
    (sym_pattern_list, STATE 8578), (sym_yield, STATE 12425), (sym_attribute, STATE 6796),
    (sym_subscript, STATE 6797), (sym_call, STATE 6768), (sym_type, STATE 10130),
    (sym_called_type, STATE 9093), (sym_function_type, STATE 9093), (sym_splat_type, STATE 9093),
    (sym_generic_type, STATE 8287), (sym_union_type, STATE 9093),
    (sym_intersection_type, STATE 9093), (sym__intersection_operand, STATE 12294),
    (sym_constrained_type, STATE 9093), (sym_member_type, STATE 8165),
    (sym_mlir_type, STATE 7017), (sym_list, STATE 7017), (sym_set, STATE 7017),
    (sym_tuple, STATE 7017), (sym_dictionary, STATE 7017), (sym_struct_literal, STATE 7017),
    (sym_list_comprehension, STATE 7017), (sym_dictionary_comprehension, STATE 7017),
    (sym_set_comprehension, STATE 7017), (sym_generator_expression, STATE 7017),
    (sym_parenthesized_expression, STATE 7017), (sym_conditional_expression, STATE 7969),
    (sym_concatenated_string, STATE 7017), (sym_string, STATE 6729), (sym_await, STATE 7017),
    (sym_identifier, ACTIONS 327), (anon_sym_import, ACTIONS 11), (anon_sym_from, ACTIONS 13),
    (anon_sym_LPAREN, ACTIONS 329), (anon_sym_STAR, ACTIONS 331), (anon_sym_print, ACTIONS 333),
    (anon_sym_comptime, ACTIONS 335), (anon_sym_assert, ACTIONS 23),
    (anon_sym___comptime_assert, ACTIONS 25), (anon_sym_return, ACTIONS 27),
    (anon_sym_del, ACTIONS 29), (anon_sym_raise, ACTIONS 31), (anon_sym_pass, ACTIONS 33),
    (anon_sym_break, ACTIONS 35), (anon_sym_continue, ACTIONS 37), (anon_sym_match, ACTIONS 337),
    (anon_sym_async, ACTIONS 339), (anon_sym_def, ACTIONS 341), (anon_sym_LBRACK, ACTIONS 343),
    (anon_sym_LBRACE, ACTIONS 61), (anon_sym_STAR_STAR, ACTIONS 345),
    (anon_sym_global, ACTIONS 63), (anon_sym_nonlocal, ACTIONS 65), (anon_sym_exec, ACTIONS 347),
    (anon_sym_type, ACTIONS 349), (anon_sym_mut, ACTIONS 339), (anon_sym_out, ACTIONS 339),
    (anon_sym_DASH, ACTIONS 79), (anon_sym_PLUS, ACTIONS 79), (anon_sym_ref, ACTIONS 81),
    (anon_sym_var, ACTIONS 81), (anon_sym_not, ACTIONS 83), (anon_sym_TILDE, ACTIONS 79),
    (anon_sym_lambda, ACTIONS 85), (anon_sym_yield, ACTIONS 87), (sym_ellipsis, ACTIONS 89),
    (anon_sym___mlir_type, ACTIONS 91), (sym_integer, ACTIONS 93), (sym_float, ACTIONS 89),
    (anon_sym_await, ACTIONS 351), (sym_true, ACTIONS 93), (sym_false, ACTIONS 93),
    (sym_none, ACTIONS 93), (sym_comment, ACTIONS 3), (sym_line_continuation, ACTIONS 3),
    (sym__newline, ACTIONS 1357), (sym__indent, ACTIONS 1359), (sym_string_start, ACTIONS 97)]"

definition parse_table_1181 :: "(nat \<times> nat) list" where "parse_table_1181 = [
    (sym__simple_statements, STATE 6355), (sym_import_statement, STATE 12239),
    (sym_future_import_statement, STATE 12239), (sym_import_from_statement, STATE 12239),
    (sym_print_statement, STATE 12239), (sym_assert_statement, STATE 12239),
    (sym_comptime_assert_statement, STATE 12239), (sym_expression_statement, STATE 12239),
    (sym_tuple_expression, STATE 12425), (sym_named_expression, STATE 7969),
    (sym__named_expression_lhs, STATE 12752), (sym_return_statement, STATE 12239),
    (sym_delete_statement, STATE 12239), (sym_raise_statement, STATE 12239),
    (sym_pass_statement, STATE 12239), (sym_break_statement, STATE 12239),
    (sym_continue_statement, STATE 12239), (sym_global_statement, STATE 12239),
    (sym_nonlocal_statement, STATE 12239), (sym_exec_statement, STATE 12239),
    (sym_type_alias_statement, STATE 12239), (sym_parameterized_alias_statement, STATE 12239),
    (sym_pattern, STATE 8086), (sym_tuple_pattern, STATE 8101), (sym_list_pattern, STATE 8101),
    (sym_list_splat_pattern, STATE 6795), (sym_as_pattern, STATE 7969),
    (sym_expression, STATE 9623), (sym_primary_expression, STATE 7326),
    (sym_comptime_expression, STATE 7017), (sym_transfer_expression, STATE 7017),
    (sym_not_operator, STATE 7969), (sym_boolean_operator, STATE 7969),
    (sym_binary_operator, STATE 7017), (sym_unary_operator, STATE 7017),
    (sym_comparison_operator, STATE 7969), (sym_lambda, STATE 7969),
    (sym_assignment, STATE 12425), (sym_augmented_assignment, STATE 12425),
    (sym_pattern_list, STATE 8578), (sym_yield, STATE 12425), (sym_attribute, STATE 6796),
    (sym_subscript, STATE 6797), (sym_call, STATE 6768), (sym_type, STATE 10130),
    (sym_called_type, STATE 9093), (sym_function_type, STATE 9093), (sym_splat_type, STATE 9093),
    (sym_generic_type, STATE 8287), (sym_union_type, STATE 9093),
    (sym_intersection_type, STATE 9093), (sym__intersection_operand, STATE 12294),
    (sym_constrained_type, STATE 9093), (sym_member_type, STATE 8165),
    (sym_mlir_type, STATE 7017), (sym_list, STATE 7017), (sym_set, STATE 7017),
    (sym_tuple, STATE 7017), (sym_dictionary, STATE 7017), (sym_struct_literal, STATE 7017),
    (sym_list_comprehension, STATE 7017), (sym_dictionary_comprehension, STATE 7017),
    (sym_set_comprehension, STATE 7017), (sym_generator_expression, STATE 7017),
    (sym_parenthesized_expression, STATE 7017), (sym_conditional_expression, STATE 7969),
    (sym_concatenated_string, STATE 7017), (sym_string, STATE 6729), (sym_await, STATE 7017),
    (sym_identifier, ACTIONS 327), (anon_sym_import, ACTIONS 11), (anon_sym_from, ACTIONS 13),
    (anon_sym_LPAREN, ACTIONS 329), (anon_sym_STAR, ACTIONS 331), (anon_sym_print, ACTIONS 333),
    (anon_sym_comptime, ACTIONS 335), (anon_sym_assert, ACTIONS 23),
    (anon_sym___comptime_assert, ACTIONS 25), (anon_sym_return, ACTIONS 27),
    (anon_sym_del, ACTIONS 29), (anon_sym_raise, ACTIONS 31), (anon_sym_pass, ACTIONS 33),
    (anon_sym_break, ACTIONS 35), (anon_sym_continue, ACTIONS 37), (anon_sym_match, ACTIONS 337),
    (anon_sym_async, ACTIONS 339), (anon_sym_def, ACTIONS 341), (anon_sym_LBRACK, ACTIONS 343),
    (anon_sym_LBRACE, ACTIONS 61), (anon_sym_STAR_STAR, ACTIONS 345),
    (anon_sym_global, ACTIONS 63), (anon_sym_nonlocal, ACTIONS 65), (anon_sym_exec, ACTIONS 347),
    (anon_sym_type, ACTIONS 349), (anon_sym_mut, ACTIONS 339), (anon_sym_out, ACTIONS 339),
    (anon_sym_DASH, ACTIONS 79), (anon_sym_PLUS, ACTIONS 79), (anon_sym_ref, ACTIONS 81),
    (anon_sym_var, ACTIONS 81), (anon_sym_not, ACTIONS 83), (anon_sym_TILDE, ACTIONS 79),
    (anon_sym_lambda, ACTIONS 85), (anon_sym_yield, ACTIONS 87), (sym_ellipsis, ACTIONS 89),
    (anon_sym___mlir_type, ACTIONS 91), (sym_integer, ACTIONS 93), (sym_float, ACTIONS 89),
    (anon_sym_await, ACTIONS 351), (sym_true, ACTIONS 93), (sym_false, ACTIONS 93),
    (sym_none, ACTIONS 93), (sym_comment, ACTIONS 3), (sym_line_continuation, ACTIONS 3),
    (sym__newline, ACTIONS 1361), (sym__indent, ACTIONS 1363), (sym_string_start, ACTIONS 97)]"

definition parse_table_1182 :: "(nat \<times> nat) list" where "parse_table_1182 = [
    (sym__simple_statements, STATE 4743), (sym_import_statement, STATE 11814),
    (sym_future_import_statement, STATE 11814), (sym_import_from_statement, STATE 11814),
    (sym_print_statement, STATE 11814), (sym_assert_statement, STATE 11814),
    (sym_comptime_assert_statement, STATE 11814), (sym_expression_statement, STATE 11814),
    (sym_tuple_expression, STATE 12425), (sym_named_expression, STATE 7969),
    (sym__named_expression_lhs, STATE 12752), (sym_return_statement, STATE 11814),
    (sym_delete_statement, STATE 11814), (sym_raise_statement, STATE 11814),
    (sym_pass_statement, STATE 11814), (sym_break_statement, STATE 11814),
    (sym_continue_statement, STATE 11814), (sym_global_statement, STATE 11814),
    (sym_nonlocal_statement, STATE 11814), (sym_exec_statement, STATE 11814),
    (sym_type_alias_statement, STATE 11814), (sym_parameterized_alias_statement, STATE 11814),
    (sym_pattern, STATE 8086), (sym_tuple_pattern, STATE 8101), (sym_list_pattern, STATE 8101),
    (sym_list_splat_pattern, STATE 6795), (sym_as_pattern, STATE 7969),
    (sym_expression, STATE 9623), (sym_primary_expression, STATE 7326),
    (sym_comptime_expression, STATE 7017), (sym_transfer_expression, STATE 7017),
    (sym_not_operator, STATE 7969), (sym_boolean_operator, STATE 7969),
    (sym_binary_operator, STATE 7017), (sym_unary_operator, STATE 7017),
    (sym_comparison_operator, STATE 7969), (sym_lambda, STATE 7969),
    (sym_assignment, STATE 12425), (sym_augmented_assignment, STATE 12425),
    (sym_pattern_list, STATE 8578), (sym_yield, STATE 12425), (sym_attribute, STATE 6796),
    (sym_subscript, STATE 6797), (sym_call, STATE 6768), (sym_type, STATE 10130),
    (sym_called_type, STATE 9093), (sym_function_type, STATE 9093), (sym_splat_type, STATE 9093),
    (sym_generic_type, STATE 8287), (sym_union_type, STATE 9093),
    (sym_intersection_type, STATE 9093), (sym__intersection_operand, STATE 12294),
    (sym_constrained_type, STATE 9093), (sym_member_type, STATE 8165),
    (sym_mlir_type, STATE 7017), (sym_list, STATE 7017), (sym_set, STATE 7017),
    (sym_tuple, STATE 7017), (sym_dictionary, STATE 7017), (sym_struct_literal, STATE 7017),
    (sym_list_comprehension, STATE 7017), (sym_dictionary_comprehension, STATE 7017),
    (sym_set_comprehension, STATE 7017), (sym_generator_expression, STATE 7017),
    (sym_parenthesized_expression, STATE 7017), (sym_conditional_expression, STATE 7969),
    (sym_concatenated_string, STATE 7017), (sym_string, STATE 6729), (sym_await, STATE 7017),
    (sym_identifier, ACTIONS 327), (anon_sym_import, ACTIONS 11), (anon_sym_from, ACTIONS 13),
    (anon_sym_LPAREN, ACTIONS 329), (anon_sym_STAR, ACTIONS 331), (anon_sym_print, ACTIONS 333),
    (anon_sym_comptime, ACTIONS 335), (anon_sym_assert, ACTIONS 23),
    (anon_sym___comptime_assert, ACTIONS 25), (anon_sym_return, ACTIONS 27),
    (anon_sym_del, ACTIONS 29), (anon_sym_raise, ACTIONS 31), (anon_sym_pass, ACTIONS 33),
    (anon_sym_break, ACTIONS 35), (anon_sym_continue, ACTIONS 37), (anon_sym_match, ACTIONS 337),
    (anon_sym_async, ACTIONS 339), (anon_sym_def, ACTIONS 341), (anon_sym_LBRACK, ACTIONS 343),
    (anon_sym_LBRACE, ACTIONS 61), (anon_sym_STAR_STAR, ACTIONS 345),
    (anon_sym_global, ACTIONS 63), (anon_sym_nonlocal, ACTIONS 65), (anon_sym_exec, ACTIONS 347),
    (anon_sym_type, ACTIONS 349), (anon_sym_mut, ACTIONS 339), (anon_sym_out, ACTIONS 339),
    (anon_sym_DASH, ACTIONS 79), (anon_sym_PLUS, ACTIONS 79), (anon_sym_ref, ACTIONS 81),
    (anon_sym_var, ACTIONS 81), (anon_sym_not, ACTIONS 83), (anon_sym_TILDE, ACTIONS 79),
    (anon_sym_lambda, ACTIONS 85), (anon_sym_yield, ACTIONS 87), (sym_ellipsis, ACTIONS 89),
    (anon_sym___mlir_type, ACTIONS 91), (sym_integer, ACTIONS 93), (sym_float, ACTIONS 89),
    (anon_sym_await, ACTIONS 351), (sym_true, ACTIONS 93), (sym_false, ACTIONS 93),
    (sym_none, ACTIONS 93), (sym_comment, ACTIONS 3), (sym_line_continuation, ACTIONS 3),
    (sym__newline, ACTIONS 1365), (sym__indent, ACTIONS 1367), (sym_string_start, ACTIONS 97)]"

definition parse_table_1183 :: "(nat \<times> nat) list" where "parse_table_1183 = [
    (sym__simple_statements, STATE 5776), (sym_import_statement, STATE 12239),
    (sym_future_import_statement, STATE 12239), (sym_import_from_statement, STATE 12239),
    (sym_print_statement, STATE 12239), (sym_assert_statement, STATE 12239),
    (sym_comptime_assert_statement, STATE 12239), (sym_expression_statement, STATE 12239),
    (sym_tuple_expression, STATE 12425), (sym_named_expression, STATE 7969),
    (sym__named_expression_lhs, STATE 12752), (sym_return_statement, STATE 12239),
    (sym_delete_statement, STATE 12239), (sym_raise_statement, STATE 12239),
    (sym_pass_statement, STATE 12239), (sym_break_statement, STATE 12239),
    (sym_continue_statement, STATE 12239), (sym_global_statement, STATE 12239),
    (sym_nonlocal_statement, STATE 12239), (sym_exec_statement, STATE 12239),
    (sym_type_alias_statement, STATE 12239), (sym_parameterized_alias_statement, STATE 12239),
    (sym_pattern, STATE 8086), (sym_tuple_pattern, STATE 8101), (sym_list_pattern, STATE 8101),
    (sym_list_splat_pattern, STATE 6795), (sym_as_pattern, STATE 7969),
    (sym_expression, STATE 9623), (sym_primary_expression, STATE 7326),
    (sym_comptime_expression, STATE 7017), (sym_transfer_expression, STATE 7017),
    (sym_not_operator, STATE 7969), (sym_boolean_operator, STATE 7969),
    (sym_binary_operator, STATE 7017), (sym_unary_operator, STATE 7017),
    (sym_comparison_operator, STATE 7969), (sym_lambda, STATE 7969),
    (sym_assignment, STATE 12425), (sym_augmented_assignment, STATE 12425),
    (sym_pattern_list, STATE 8578), (sym_yield, STATE 12425), (sym_attribute, STATE 6796),
    (sym_subscript, STATE 6797), (sym_call, STATE 6768), (sym_type, STATE 10130),
    (sym_called_type, STATE 9093), (sym_function_type, STATE 9093), (sym_splat_type, STATE 9093),
    (sym_generic_type, STATE 8287), (sym_union_type, STATE 9093),
    (sym_intersection_type, STATE 9093), (sym__intersection_operand, STATE 12294),
    (sym_constrained_type, STATE 9093), (sym_member_type, STATE 8165),
    (sym_mlir_type, STATE 7017), (sym_list, STATE 7017), (sym_set, STATE 7017),
    (sym_tuple, STATE 7017), (sym_dictionary, STATE 7017), (sym_struct_literal, STATE 7017),
    (sym_list_comprehension, STATE 7017), (sym_dictionary_comprehension, STATE 7017),
    (sym_set_comprehension, STATE 7017), (sym_generator_expression, STATE 7017),
    (sym_parenthesized_expression, STATE 7017), (sym_conditional_expression, STATE 7969),
    (sym_concatenated_string, STATE 7017), (sym_string, STATE 6729), (sym_await, STATE 7017),
    (sym_identifier, ACTIONS 327), (anon_sym_import, ACTIONS 11), (anon_sym_from, ACTIONS 13),
    (anon_sym_LPAREN, ACTIONS 329), (anon_sym_STAR, ACTIONS 331), (anon_sym_print, ACTIONS 333),
    (anon_sym_comptime, ACTIONS 335), (anon_sym_assert, ACTIONS 23),
    (anon_sym___comptime_assert, ACTIONS 25), (anon_sym_return, ACTIONS 27),
    (anon_sym_del, ACTIONS 29), (anon_sym_raise, ACTIONS 31), (anon_sym_pass, ACTIONS 33),
    (anon_sym_break, ACTIONS 35), (anon_sym_continue, ACTIONS 37), (anon_sym_match, ACTIONS 337),
    (anon_sym_async, ACTIONS 339), (anon_sym_def, ACTIONS 341), (anon_sym_LBRACK, ACTIONS 343),
    (anon_sym_LBRACE, ACTIONS 61), (anon_sym_STAR_STAR, ACTIONS 345),
    (anon_sym_global, ACTIONS 63), (anon_sym_nonlocal, ACTIONS 65), (anon_sym_exec, ACTIONS 347),
    (anon_sym_type, ACTIONS 349), (anon_sym_mut, ACTIONS 339), (anon_sym_out, ACTIONS 339),
    (anon_sym_DASH, ACTIONS 79), (anon_sym_PLUS, ACTIONS 79), (anon_sym_ref, ACTIONS 81),
    (anon_sym_var, ACTIONS 81), (anon_sym_not, ACTIONS 83), (anon_sym_TILDE, ACTIONS 79),
    (anon_sym_lambda, ACTIONS 85), (anon_sym_yield, ACTIONS 87), (sym_ellipsis, ACTIONS 89),
    (anon_sym___mlir_type, ACTIONS 91), (sym_integer, ACTIONS 93), (sym_float, ACTIONS 89),
    (anon_sym_await, ACTIONS 351), (sym_true, ACTIONS 93), (sym_false, ACTIONS 93),
    (sym_none, ACTIONS 93), (sym_comment, ACTIONS 3), (sym_line_continuation, ACTIONS 3),
    (sym__newline, ACTIONS 1369), (sym__indent, ACTIONS 1371), (sym_string_start, ACTIONS 97)]"

definition parse_table_1184 :: "(nat \<times> nat) list" where "parse_table_1184 = [
    (sym__simple_statements, STATE 5513), (sym_import_statement, STATE 12239),
    (sym_future_import_statement, STATE 12239), (sym_import_from_statement, STATE 12239),
    (sym_print_statement, STATE 12239), (sym_assert_statement, STATE 12239),
    (sym_comptime_assert_statement, STATE 12239), (sym_expression_statement, STATE 12239),
    (sym_tuple_expression, STATE 12425), (sym_named_expression, STATE 7969),
    (sym__named_expression_lhs, STATE 12752), (sym_return_statement, STATE 12239),
    (sym_delete_statement, STATE 12239), (sym_raise_statement, STATE 12239),
    (sym_pass_statement, STATE 12239), (sym_break_statement, STATE 12239),
    (sym_continue_statement, STATE 12239), (sym_global_statement, STATE 12239),
    (sym_nonlocal_statement, STATE 12239), (sym_exec_statement, STATE 12239),
    (sym_type_alias_statement, STATE 12239), (sym_parameterized_alias_statement, STATE 12239),
    (sym_pattern, STATE 8086), (sym_tuple_pattern, STATE 8101), (sym_list_pattern, STATE 8101),
    (sym_list_splat_pattern, STATE 6795), (sym_as_pattern, STATE 7969),
    (sym_expression, STATE 9623), (sym_primary_expression, STATE 7326),
    (sym_comptime_expression, STATE 7017), (sym_transfer_expression, STATE 7017),
    (sym_not_operator, STATE 7969), (sym_boolean_operator, STATE 7969),
    (sym_binary_operator, STATE 7017), (sym_unary_operator, STATE 7017),
    (sym_comparison_operator, STATE 7969), (sym_lambda, STATE 7969),
    (sym_assignment, STATE 12425), (sym_augmented_assignment, STATE 12425),
    (sym_pattern_list, STATE 8578), (sym_yield, STATE 12425), (sym_attribute, STATE 6796),
    (sym_subscript, STATE 6797), (sym_call, STATE 6768), (sym_type, STATE 10130),
    (sym_called_type, STATE 9093), (sym_function_type, STATE 9093), (sym_splat_type, STATE 9093),
    (sym_generic_type, STATE 8287), (sym_union_type, STATE 9093),
    (sym_intersection_type, STATE 9093), (sym__intersection_operand, STATE 12294),
    (sym_constrained_type, STATE 9093), (sym_member_type, STATE 8165),
    (sym_mlir_type, STATE 7017), (sym_list, STATE 7017), (sym_set, STATE 7017),
    (sym_tuple, STATE 7017), (sym_dictionary, STATE 7017), (sym_struct_literal, STATE 7017),
    (sym_list_comprehension, STATE 7017), (sym_dictionary_comprehension, STATE 7017),
    (sym_set_comprehension, STATE 7017), (sym_generator_expression, STATE 7017),
    (sym_parenthesized_expression, STATE 7017), (sym_conditional_expression, STATE 7969),
    (sym_concatenated_string, STATE 7017), (sym_string, STATE 6729), (sym_await, STATE 7017),
    (sym_identifier, ACTIONS 327), (anon_sym_import, ACTIONS 11), (anon_sym_from, ACTIONS 13),
    (anon_sym_LPAREN, ACTIONS 329), (anon_sym_STAR, ACTIONS 331), (anon_sym_print, ACTIONS 333),
    (anon_sym_comptime, ACTIONS 335), (anon_sym_assert, ACTIONS 23),
    (anon_sym___comptime_assert, ACTIONS 25), (anon_sym_return, ACTIONS 27),
    (anon_sym_del, ACTIONS 29), (anon_sym_raise, ACTIONS 31), (anon_sym_pass, ACTIONS 33),
    (anon_sym_break, ACTIONS 35), (anon_sym_continue, ACTIONS 37), (anon_sym_match, ACTIONS 337),
    (anon_sym_async, ACTIONS 339), (anon_sym_def, ACTIONS 341), (anon_sym_LBRACK, ACTIONS 343),
    (anon_sym_LBRACE, ACTIONS 61), (anon_sym_STAR_STAR, ACTIONS 345),
    (anon_sym_global, ACTIONS 63), (anon_sym_nonlocal, ACTIONS 65), (anon_sym_exec, ACTIONS 347),
    (anon_sym_type, ACTIONS 349), (anon_sym_mut, ACTIONS 339), (anon_sym_out, ACTIONS 339),
    (anon_sym_DASH, ACTIONS 79), (anon_sym_PLUS, ACTIONS 79), (anon_sym_ref, ACTIONS 81),
    (anon_sym_var, ACTIONS 81), (anon_sym_not, ACTIONS 83), (anon_sym_TILDE, ACTIONS 79),
    (anon_sym_lambda, ACTIONS 85), (anon_sym_yield, ACTIONS 87), (sym_ellipsis, ACTIONS 89),
    (anon_sym___mlir_type, ACTIONS 91), (sym_integer, ACTIONS 93), (sym_float, ACTIONS 89),
    (anon_sym_await, ACTIONS 351), (sym_true, ACTIONS 93), (sym_false, ACTIONS 93),
    (sym_none, ACTIONS 93), (sym_comment, ACTIONS 3), (sym_line_continuation, ACTIONS 3),
    (sym__newline, ACTIONS 1373), (sym__indent, ACTIONS 1375), (sym_string_start, ACTIONS 97)]"

definition parse_table_1185 :: "(nat \<times> nat) list" where "parse_table_1185 = [
    (sym__simple_statements, STATE 5944), (sym_import_statement, STATE 11814),
    (sym_future_import_statement, STATE 11814), (sym_import_from_statement, STATE 11814),
    (sym_print_statement, STATE 11814), (sym_assert_statement, STATE 11814),
    (sym_comptime_assert_statement, STATE 11814), (sym_expression_statement, STATE 11814),
    (sym_tuple_expression, STATE 12425), (sym_named_expression, STATE 7969),
    (sym__named_expression_lhs, STATE 12752), (sym_return_statement, STATE 11814),
    (sym_delete_statement, STATE 11814), (sym_raise_statement, STATE 11814),
    (sym_pass_statement, STATE 11814), (sym_break_statement, STATE 11814),
    (sym_continue_statement, STATE 11814), (sym_global_statement, STATE 11814),
    (sym_nonlocal_statement, STATE 11814), (sym_exec_statement, STATE 11814),
    (sym_type_alias_statement, STATE 11814), (sym_parameterized_alias_statement, STATE 11814),
    (sym_pattern, STATE 8086), (sym_tuple_pattern, STATE 8101), (sym_list_pattern, STATE 8101),
    (sym_list_splat_pattern, STATE 6795), (sym_as_pattern, STATE 7969),
    (sym_expression, STATE 9623), (sym_primary_expression, STATE 7326),
    (sym_comptime_expression, STATE 7017), (sym_transfer_expression, STATE 7017),
    (sym_not_operator, STATE 7969), (sym_boolean_operator, STATE 7969),
    (sym_binary_operator, STATE 7017), (sym_unary_operator, STATE 7017),
    (sym_comparison_operator, STATE 7969), (sym_lambda, STATE 7969),
    (sym_assignment, STATE 12425), (sym_augmented_assignment, STATE 12425),
    (sym_pattern_list, STATE 8578), (sym_yield, STATE 12425), (sym_attribute, STATE 6796),
    (sym_subscript, STATE 6797), (sym_call, STATE 6768), (sym_type, STATE 10130),
    (sym_called_type, STATE 9093), (sym_function_type, STATE 9093), (sym_splat_type, STATE 9093),
    (sym_generic_type, STATE 8287), (sym_union_type, STATE 9093),
    (sym_intersection_type, STATE 9093), (sym__intersection_operand, STATE 12294),
    (sym_constrained_type, STATE 9093), (sym_member_type, STATE 8165),
    (sym_mlir_type, STATE 7017), (sym_list, STATE 7017), (sym_set, STATE 7017),
    (sym_tuple, STATE 7017), (sym_dictionary, STATE 7017), (sym_struct_literal, STATE 7017),
    (sym_list_comprehension, STATE 7017), (sym_dictionary_comprehension, STATE 7017),
    (sym_set_comprehension, STATE 7017), (sym_generator_expression, STATE 7017),
    (sym_parenthesized_expression, STATE 7017), (sym_conditional_expression, STATE 7969),
    (sym_concatenated_string, STATE 7017), (sym_string, STATE 6729), (sym_await, STATE 7017),
    (sym_identifier, ACTIONS 327), (anon_sym_import, ACTIONS 11), (anon_sym_from, ACTIONS 13),
    (anon_sym_LPAREN, ACTIONS 329), (anon_sym_STAR, ACTIONS 331), (anon_sym_print, ACTIONS 333),
    (anon_sym_comptime, ACTIONS 335), (anon_sym_assert, ACTIONS 23),
    (anon_sym___comptime_assert, ACTIONS 25), (anon_sym_return, ACTIONS 27),
    (anon_sym_del, ACTIONS 29), (anon_sym_raise, ACTIONS 31), (anon_sym_pass, ACTIONS 33),
    (anon_sym_break, ACTIONS 35), (anon_sym_continue, ACTIONS 37), (anon_sym_match, ACTIONS 337),
    (anon_sym_async, ACTIONS 339), (anon_sym_def, ACTIONS 341), (anon_sym_LBRACK, ACTIONS 343),
    (anon_sym_LBRACE, ACTIONS 61), (anon_sym_STAR_STAR, ACTIONS 345),
    (anon_sym_global, ACTIONS 63), (anon_sym_nonlocal, ACTIONS 65), (anon_sym_exec, ACTIONS 347),
    (anon_sym_type, ACTIONS 349), (anon_sym_mut, ACTIONS 339), (anon_sym_out, ACTIONS 339),
    (anon_sym_DASH, ACTIONS 79), (anon_sym_PLUS, ACTIONS 79), (anon_sym_ref, ACTIONS 81),
    (anon_sym_var, ACTIONS 81), (anon_sym_not, ACTIONS 83), (anon_sym_TILDE, ACTIONS 79),
    (anon_sym_lambda, ACTIONS 85), (anon_sym_yield, ACTIONS 87), (sym_ellipsis, ACTIONS 89),
    (anon_sym___mlir_type, ACTIONS 91), (sym_integer, ACTIONS 93), (sym_float, ACTIONS 89),
    (anon_sym_await, ACTIONS 351), (sym_true, ACTIONS 93), (sym_false, ACTIONS 93),
    (sym_none, ACTIONS 93), (sym_comment, ACTIONS 3), (sym_line_continuation, ACTIONS 3),
    (sym__newline, ACTIONS 1377), (sym__indent, ACTIONS 1379), (sym_string_start, ACTIONS 97)]"

definition parse_table_1186 :: "(nat \<times> nat) list" where "parse_table_1186 = [
    (sym__simple_statements, STATE 5949), (sym_import_statement, STATE 11814),
    (sym_future_import_statement, STATE 11814), (sym_import_from_statement, STATE 11814),
    (sym_print_statement, STATE 11814), (sym_assert_statement, STATE 11814),
    (sym_comptime_assert_statement, STATE 11814), (sym_expression_statement, STATE 11814),
    (sym_tuple_expression, STATE 12425), (sym_named_expression, STATE 7969),
    (sym__named_expression_lhs, STATE 12752), (sym_return_statement, STATE 11814),
    (sym_delete_statement, STATE 11814), (sym_raise_statement, STATE 11814),
    (sym_pass_statement, STATE 11814), (sym_break_statement, STATE 11814),
    (sym_continue_statement, STATE 11814), (sym_global_statement, STATE 11814),
    (sym_nonlocal_statement, STATE 11814), (sym_exec_statement, STATE 11814),
    (sym_type_alias_statement, STATE 11814), (sym_parameterized_alias_statement, STATE 11814),
    (sym_pattern, STATE 8086), (sym_tuple_pattern, STATE 8101), (sym_list_pattern, STATE 8101),
    (sym_list_splat_pattern, STATE 6795), (sym_as_pattern, STATE 7969),
    (sym_expression, STATE 9623), (sym_primary_expression, STATE 7326),
    (sym_comptime_expression, STATE 7017), (sym_transfer_expression, STATE 7017),
    (sym_not_operator, STATE 7969), (sym_boolean_operator, STATE 7969),
    (sym_binary_operator, STATE 7017), (sym_unary_operator, STATE 7017),
    (sym_comparison_operator, STATE 7969), (sym_lambda, STATE 7969),
    (sym_assignment, STATE 12425), (sym_augmented_assignment, STATE 12425),
    (sym_pattern_list, STATE 8578), (sym_yield, STATE 12425), (sym_attribute, STATE 6796),
    (sym_subscript, STATE 6797), (sym_call, STATE 6768), (sym_type, STATE 10130),
    (sym_called_type, STATE 9093), (sym_function_type, STATE 9093), (sym_splat_type, STATE 9093),
    (sym_generic_type, STATE 8287), (sym_union_type, STATE 9093),
    (sym_intersection_type, STATE 9093), (sym__intersection_operand, STATE 12294),
    (sym_constrained_type, STATE 9093), (sym_member_type, STATE 8165),
    (sym_mlir_type, STATE 7017), (sym_list, STATE 7017), (sym_set, STATE 7017),
    (sym_tuple, STATE 7017), (sym_dictionary, STATE 7017), (sym_struct_literal, STATE 7017),
    (sym_list_comprehension, STATE 7017), (sym_dictionary_comprehension, STATE 7017),
    (sym_set_comprehension, STATE 7017), (sym_generator_expression, STATE 7017),
    (sym_parenthesized_expression, STATE 7017), (sym_conditional_expression, STATE 7969),
    (sym_concatenated_string, STATE 7017), (sym_string, STATE 6729), (sym_await, STATE 7017),
    (sym_identifier, ACTIONS 327), (anon_sym_import, ACTIONS 11), (anon_sym_from, ACTIONS 13),
    (anon_sym_LPAREN, ACTIONS 329), (anon_sym_STAR, ACTIONS 331), (anon_sym_print, ACTIONS 333),
    (anon_sym_comptime, ACTIONS 335), (anon_sym_assert, ACTIONS 23),
    (anon_sym___comptime_assert, ACTIONS 25), (anon_sym_return, ACTIONS 27),
    (anon_sym_del, ACTIONS 29), (anon_sym_raise, ACTIONS 31), (anon_sym_pass, ACTIONS 33),
    (anon_sym_break, ACTIONS 35), (anon_sym_continue, ACTIONS 37), (anon_sym_match, ACTIONS 337),
    (anon_sym_async, ACTIONS 339), (anon_sym_def, ACTIONS 341), (anon_sym_LBRACK, ACTIONS 343),
    (anon_sym_LBRACE, ACTIONS 61), (anon_sym_STAR_STAR, ACTIONS 345),
    (anon_sym_global, ACTIONS 63), (anon_sym_nonlocal, ACTIONS 65), (anon_sym_exec, ACTIONS 347),
    (anon_sym_type, ACTIONS 349), (anon_sym_mut, ACTIONS 339), (anon_sym_out, ACTIONS 339),
    (anon_sym_DASH, ACTIONS 79), (anon_sym_PLUS, ACTIONS 79), (anon_sym_ref, ACTIONS 81),
    (anon_sym_var, ACTIONS 81), (anon_sym_not, ACTIONS 83), (anon_sym_TILDE, ACTIONS 79),
    (anon_sym_lambda, ACTIONS 85), (anon_sym_yield, ACTIONS 87), (sym_ellipsis, ACTIONS 89),
    (anon_sym___mlir_type, ACTIONS 91), (sym_integer, ACTIONS 93), (sym_float, ACTIONS 89),
    (anon_sym_await, ACTIONS 351), (sym_true, ACTIONS 93), (sym_false, ACTIONS 93),
    (sym_none, ACTIONS 93), (sym_comment, ACTIONS 3), (sym_line_continuation, ACTIONS 3),
    (sym__newline, ACTIONS 1381), (sym__indent, ACTIONS 1383), (sym_string_start, ACTIONS 97)]"

definition parse_table_1187 :: "(nat \<times> nat) list" where "parse_table_1187 = [
    (sym__simple_statements, STATE 4750), (sym_import_statement, STATE 11814),
    (sym_future_import_statement, STATE 11814), (sym_import_from_statement, STATE 11814),
    (sym_print_statement, STATE 11814), (sym_assert_statement, STATE 11814),
    (sym_comptime_assert_statement, STATE 11814), (sym_expression_statement, STATE 11814),
    (sym_tuple_expression, STATE 12425), (sym_named_expression, STATE 7969),
    (sym__named_expression_lhs, STATE 12752), (sym_return_statement, STATE 11814),
    (sym_delete_statement, STATE 11814), (sym_raise_statement, STATE 11814),
    (sym_pass_statement, STATE 11814), (sym_break_statement, STATE 11814),
    (sym_continue_statement, STATE 11814), (sym_global_statement, STATE 11814),
    (sym_nonlocal_statement, STATE 11814), (sym_exec_statement, STATE 11814),
    (sym_type_alias_statement, STATE 11814), (sym_parameterized_alias_statement, STATE 11814),
    (sym_pattern, STATE 8086), (sym_tuple_pattern, STATE 8101), (sym_list_pattern, STATE 8101),
    (sym_list_splat_pattern, STATE 6795), (sym_as_pattern, STATE 7969),
    (sym_expression, STATE 9623), (sym_primary_expression, STATE 7326),
    (sym_comptime_expression, STATE 7017), (sym_transfer_expression, STATE 7017),
    (sym_not_operator, STATE 7969), (sym_boolean_operator, STATE 7969),
    (sym_binary_operator, STATE 7017), (sym_unary_operator, STATE 7017),
    (sym_comparison_operator, STATE 7969), (sym_lambda, STATE 7969),
    (sym_assignment, STATE 12425), (sym_augmented_assignment, STATE 12425),
    (sym_pattern_list, STATE 8578), (sym_yield, STATE 12425), (sym_attribute, STATE 6796),
    (sym_subscript, STATE 6797), (sym_call, STATE 6768), (sym_type, STATE 10130),
    (sym_called_type, STATE 9093), (sym_function_type, STATE 9093), (sym_splat_type, STATE 9093),
    (sym_generic_type, STATE 8287), (sym_union_type, STATE 9093),
    (sym_intersection_type, STATE 9093), (sym__intersection_operand, STATE 12294),
    (sym_constrained_type, STATE 9093), (sym_member_type, STATE 8165),
    (sym_mlir_type, STATE 7017), (sym_list, STATE 7017), (sym_set, STATE 7017),
    (sym_tuple, STATE 7017), (sym_dictionary, STATE 7017), (sym_struct_literal, STATE 7017),
    (sym_list_comprehension, STATE 7017), (sym_dictionary_comprehension, STATE 7017),
    (sym_set_comprehension, STATE 7017), (sym_generator_expression, STATE 7017),
    (sym_parenthesized_expression, STATE 7017), (sym_conditional_expression, STATE 7969),
    (sym_concatenated_string, STATE 7017), (sym_string, STATE 6729), (sym_await, STATE 7017),
    (sym_identifier, ACTIONS 327), (anon_sym_import, ACTIONS 11), (anon_sym_from, ACTIONS 13),
    (anon_sym_LPAREN, ACTIONS 329), (anon_sym_STAR, ACTIONS 331), (anon_sym_print, ACTIONS 333),
    (anon_sym_comptime, ACTIONS 335), (anon_sym_assert, ACTIONS 23),
    (anon_sym___comptime_assert, ACTIONS 25), (anon_sym_return, ACTIONS 27),
    (anon_sym_del, ACTIONS 29), (anon_sym_raise, ACTIONS 31), (anon_sym_pass, ACTIONS 33),
    (anon_sym_break, ACTIONS 35), (anon_sym_continue, ACTIONS 37), (anon_sym_match, ACTIONS 337),
    (anon_sym_async, ACTIONS 339), (anon_sym_def, ACTIONS 341), (anon_sym_LBRACK, ACTIONS 343),
    (anon_sym_LBRACE, ACTIONS 61), (anon_sym_STAR_STAR, ACTIONS 345),
    (anon_sym_global, ACTIONS 63), (anon_sym_nonlocal, ACTIONS 65), (anon_sym_exec, ACTIONS 347),
    (anon_sym_type, ACTIONS 349), (anon_sym_mut, ACTIONS 339), (anon_sym_out, ACTIONS 339),
    (anon_sym_DASH, ACTIONS 79), (anon_sym_PLUS, ACTIONS 79), (anon_sym_ref, ACTIONS 81),
    (anon_sym_var, ACTIONS 81), (anon_sym_not, ACTIONS 83), (anon_sym_TILDE, ACTIONS 79),
    (anon_sym_lambda, ACTIONS 85), (anon_sym_yield, ACTIONS 87), (sym_ellipsis, ACTIONS 89),
    (anon_sym___mlir_type, ACTIONS 91), (sym_integer, ACTIONS 93), (sym_float, ACTIONS 89),
    (anon_sym_await, ACTIONS 351), (sym_true, ACTIONS 93), (sym_false, ACTIONS 93),
    (sym_none, ACTIONS 93), (sym_comment, ACTIONS 3), (sym_line_continuation, ACTIONS 3),
    (sym__newline, ACTIONS 1385), (sym__indent, ACTIONS 1387), (sym_string_start, ACTIONS 97)]"

definition parse_table_1188 :: "(nat \<times> nat) list" where "parse_table_1188 = [
    (sym__simple_statements, STATE 5963), (sym_import_statement, STATE 11814),
    (sym_future_import_statement, STATE 11814), (sym_import_from_statement, STATE 11814),
    (sym_print_statement, STATE 11814), (sym_assert_statement, STATE 11814),
    (sym_comptime_assert_statement, STATE 11814), (sym_expression_statement, STATE 11814),
    (sym_tuple_expression, STATE 12425), (sym_named_expression, STATE 7969),
    (sym__named_expression_lhs, STATE 12752), (sym_return_statement, STATE 11814),
    (sym_delete_statement, STATE 11814), (sym_raise_statement, STATE 11814),
    (sym_pass_statement, STATE 11814), (sym_break_statement, STATE 11814),
    (sym_continue_statement, STATE 11814), (sym_global_statement, STATE 11814),
    (sym_nonlocal_statement, STATE 11814), (sym_exec_statement, STATE 11814),
    (sym_type_alias_statement, STATE 11814), (sym_parameterized_alias_statement, STATE 11814),
    (sym_pattern, STATE 8086), (sym_tuple_pattern, STATE 8101), (sym_list_pattern, STATE 8101),
    (sym_list_splat_pattern, STATE 6795), (sym_as_pattern, STATE 7969),
    (sym_expression, STATE 9623), (sym_primary_expression, STATE 7326),
    (sym_comptime_expression, STATE 7017), (sym_transfer_expression, STATE 7017),
    (sym_not_operator, STATE 7969), (sym_boolean_operator, STATE 7969),
    (sym_binary_operator, STATE 7017), (sym_unary_operator, STATE 7017),
    (sym_comparison_operator, STATE 7969), (sym_lambda, STATE 7969),
    (sym_assignment, STATE 12425), (sym_augmented_assignment, STATE 12425),
    (sym_pattern_list, STATE 8578), (sym_yield, STATE 12425), (sym_attribute, STATE 6796),
    (sym_subscript, STATE 6797), (sym_call, STATE 6768), (sym_type, STATE 10130),
    (sym_called_type, STATE 9093), (sym_function_type, STATE 9093), (sym_splat_type, STATE 9093),
    (sym_generic_type, STATE 8287), (sym_union_type, STATE 9093),
    (sym_intersection_type, STATE 9093), (sym__intersection_operand, STATE 12294),
    (sym_constrained_type, STATE 9093), (sym_member_type, STATE 8165),
    (sym_mlir_type, STATE 7017), (sym_list, STATE 7017), (sym_set, STATE 7017),
    (sym_tuple, STATE 7017), (sym_dictionary, STATE 7017), (sym_struct_literal, STATE 7017),
    (sym_list_comprehension, STATE 7017), (sym_dictionary_comprehension, STATE 7017),
    (sym_set_comprehension, STATE 7017), (sym_generator_expression, STATE 7017),
    (sym_parenthesized_expression, STATE 7017), (sym_conditional_expression, STATE 7969),
    (sym_concatenated_string, STATE 7017), (sym_string, STATE 6729), (sym_await, STATE 7017),
    (sym_identifier, ACTIONS 327), (anon_sym_import, ACTIONS 11), (anon_sym_from, ACTIONS 13),
    (anon_sym_LPAREN, ACTIONS 329), (anon_sym_STAR, ACTIONS 331), (anon_sym_print, ACTIONS 333),
    (anon_sym_comptime, ACTIONS 335), (anon_sym_assert, ACTIONS 23),
    (anon_sym___comptime_assert, ACTIONS 25), (anon_sym_return, ACTIONS 27),
    (anon_sym_del, ACTIONS 29), (anon_sym_raise, ACTIONS 31), (anon_sym_pass, ACTIONS 33),
    (anon_sym_break, ACTIONS 35), (anon_sym_continue, ACTIONS 37), (anon_sym_match, ACTIONS 337),
    (anon_sym_async, ACTIONS 339), (anon_sym_def, ACTIONS 341), (anon_sym_LBRACK, ACTIONS 343),
    (anon_sym_LBRACE, ACTIONS 61), (anon_sym_STAR_STAR, ACTIONS 345),
    (anon_sym_global, ACTIONS 63), (anon_sym_nonlocal, ACTIONS 65), (anon_sym_exec, ACTIONS 347),
    (anon_sym_type, ACTIONS 349), (anon_sym_mut, ACTIONS 339), (anon_sym_out, ACTIONS 339),
    (anon_sym_DASH, ACTIONS 79), (anon_sym_PLUS, ACTIONS 79), (anon_sym_ref, ACTIONS 81),
    (anon_sym_var, ACTIONS 81), (anon_sym_not, ACTIONS 83), (anon_sym_TILDE, ACTIONS 79),
    (anon_sym_lambda, ACTIONS 85), (anon_sym_yield, ACTIONS 87), (sym_ellipsis, ACTIONS 89),
    (anon_sym___mlir_type, ACTIONS 91), (sym_integer, ACTIONS 93), (sym_float, ACTIONS 89),
    (anon_sym_await, ACTIONS 351), (sym_true, ACTIONS 93), (sym_false, ACTIONS 93),
    (sym_none, ACTIONS 93), (sym_comment, ACTIONS 3), (sym_line_continuation, ACTIONS 3),
    (sym__newline, ACTIONS 1389), (sym__indent, ACTIONS 1391), (sym_string_start, ACTIONS 97)]"

definition parse_table_1189 :: "(nat \<times> nat) list" where "parse_table_1189 = [
    (sym__simple_statements, STATE 5518), (sym_import_statement, STATE 12239),
    (sym_future_import_statement, STATE 12239), (sym_import_from_statement, STATE 12239),
    (sym_print_statement, STATE 12239), (sym_assert_statement, STATE 12239),
    (sym_comptime_assert_statement, STATE 12239), (sym_expression_statement, STATE 12239),
    (sym_tuple_expression, STATE 12425), (sym_named_expression, STATE 7969),
    (sym__named_expression_lhs, STATE 12752), (sym_return_statement, STATE 12239),
    (sym_delete_statement, STATE 12239), (sym_raise_statement, STATE 12239),
    (sym_pass_statement, STATE 12239), (sym_break_statement, STATE 12239),
    (sym_continue_statement, STATE 12239), (sym_global_statement, STATE 12239),
    (sym_nonlocal_statement, STATE 12239), (sym_exec_statement, STATE 12239),
    (sym_type_alias_statement, STATE 12239), (sym_parameterized_alias_statement, STATE 12239),
    (sym_pattern, STATE 8086), (sym_tuple_pattern, STATE 8101), (sym_list_pattern, STATE 8101),
    (sym_list_splat_pattern, STATE 6795), (sym_as_pattern, STATE 7969),
    (sym_expression, STATE 9623), (sym_primary_expression, STATE 7326),
    (sym_comptime_expression, STATE 7017), (sym_transfer_expression, STATE 7017),
    (sym_not_operator, STATE 7969), (sym_boolean_operator, STATE 7969),
    (sym_binary_operator, STATE 7017), (sym_unary_operator, STATE 7017),
    (sym_comparison_operator, STATE 7969), (sym_lambda, STATE 7969),
    (sym_assignment, STATE 12425), (sym_augmented_assignment, STATE 12425),
    (sym_pattern_list, STATE 8578), (sym_yield, STATE 12425), (sym_attribute, STATE 6796),
    (sym_subscript, STATE 6797), (sym_call, STATE 6768), (sym_type, STATE 10130),
    (sym_called_type, STATE 9093), (sym_function_type, STATE 9093), (sym_splat_type, STATE 9093),
    (sym_generic_type, STATE 8287), (sym_union_type, STATE 9093),
    (sym_intersection_type, STATE 9093), (sym__intersection_operand, STATE 12294),
    (sym_constrained_type, STATE 9093), (sym_member_type, STATE 8165),
    (sym_mlir_type, STATE 7017), (sym_list, STATE 7017), (sym_set, STATE 7017),
    (sym_tuple, STATE 7017), (sym_dictionary, STATE 7017), (sym_struct_literal, STATE 7017),
    (sym_list_comprehension, STATE 7017), (sym_dictionary_comprehension, STATE 7017),
    (sym_set_comprehension, STATE 7017), (sym_generator_expression, STATE 7017),
    (sym_parenthesized_expression, STATE 7017), (sym_conditional_expression, STATE 7969),
    (sym_concatenated_string, STATE 7017), (sym_string, STATE 6729), (sym_await, STATE 7017),
    (sym_identifier, ACTIONS 327), (anon_sym_import, ACTIONS 11), (anon_sym_from, ACTIONS 13),
    (anon_sym_LPAREN, ACTIONS 329), (anon_sym_STAR, ACTIONS 331), (anon_sym_print, ACTIONS 333),
    (anon_sym_comptime, ACTIONS 335), (anon_sym_assert, ACTIONS 23),
    (anon_sym___comptime_assert, ACTIONS 25), (anon_sym_return, ACTIONS 27),
    (anon_sym_del, ACTIONS 29), (anon_sym_raise, ACTIONS 31), (anon_sym_pass, ACTIONS 33),
    (anon_sym_break, ACTIONS 35), (anon_sym_continue, ACTIONS 37), (anon_sym_match, ACTIONS 337),
    (anon_sym_async, ACTIONS 339), (anon_sym_def, ACTIONS 341), (anon_sym_LBRACK, ACTIONS 343),
    (anon_sym_LBRACE, ACTIONS 61), (anon_sym_STAR_STAR, ACTIONS 345),
    (anon_sym_global, ACTIONS 63), (anon_sym_nonlocal, ACTIONS 65), (anon_sym_exec, ACTIONS 347),
    (anon_sym_type, ACTIONS 349), (anon_sym_mut, ACTIONS 339), (anon_sym_out, ACTIONS 339),
    (anon_sym_DASH, ACTIONS 79), (anon_sym_PLUS, ACTIONS 79), (anon_sym_ref, ACTIONS 81),
    (anon_sym_var, ACTIONS 81), (anon_sym_not, ACTIONS 83), (anon_sym_TILDE, ACTIONS 79),
    (anon_sym_lambda, ACTIONS 85), (anon_sym_yield, ACTIONS 87), (sym_ellipsis, ACTIONS 89),
    (anon_sym___mlir_type, ACTIONS 91), (sym_integer, ACTIONS 93), (sym_float, ACTIONS 89),
    (anon_sym_await, ACTIONS 351), (sym_true, ACTIONS 93), (sym_false, ACTIONS 93),
    (sym_none, ACTIONS 93), (sym_comment, ACTIONS 3), (sym_line_continuation, ACTIONS 3),
    (sym__newline, ACTIONS 1393), (sym__indent, ACTIONS 1395), (sym_string_start, ACTIONS 97)]"

definition parse_table_1190 :: "(nat \<times> nat) list" where "parse_table_1190 = [
    (sym__simple_statements, STATE 5204), (sym_import_statement, STATE 12239),
    (sym_future_import_statement, STATE 12239), (sym_import_from_statement, STATE 12239),
    (sym_print_statement, STATE 12239), (sym_assert_statement, STATE 12239),
    (sym_comptime_assert_statement, STATE 12239), (sym_expression_statement, STATE 12239),
    (sym_tuple_expression, STATE 12425), (sym_named_expression, STATE 7969),
    (sym__named_expression_lhs, STATE 12752), (sym_return_statement, STATE 12239),
    (sym_delete_statement, STATE 12239), (sym_raise_statement, STATE 12239),
    (sym_pass_statement, STATE 12239), (sym_break_statement, STATE 12239),
    (sym_continue_statement, STATE 12239), (sym_global_statement, STATE 12239),
    (sym_nonlocal_statement, STATE 12239), (sym_exec_statement, STATE 12239),
    (sym_type_alias_statement, STATE 12239), (sym_parameterized_alias_statement, STATE 12239),
    (sym_pattern, STATE 8086), (sym_tuple_pattern, STATE 8101), (sym_list_pattern, STATE 8101),
    (sym_list_splat_pattern, STATE 6795), (sym_as_pattern, STATE 7969),
    (sym_expression, STATE 9623), (sym_primary_expression, STATE 7326),
    (sym_comptime_expression, STATE 7017), (sym_transfer_expression, STATE 7017),
    (sym_not_operator, STATE 7969), (sym_boolean_operator, STATE 7969),
    (sym_binary_operator, STATE 7017), (sym_unary_operator, STATE 7017),
    (sym_comparison_operator, STATE 7969), (sym_lambda, STATE 7969),
    (sym_assignment, STATE 12425), (sym_augmented_assignment, STATE 12425),
    (sym_pattern_list, STATE 8578), (sym_yield, STATE 12425), (sym_attribute, STATE 6796),
    (sym_subscript, STATE 6797), (sym_call, STATE 6768), (sym_type, STATE 10130),
    (sym_called_type, STATE 9093), (sym_function_type, STATE 9093), (sym_splat_type, STATE 9093),
    (sym_generic_type, STATE 8287), (sym_union_type, STATE 9093),
    (sym_intersection_type, STATE 9093), (sym__intersection_operand, STATE 12294),
    (sym_constrained_type, STATE 9093), (sym_member_type, STATE 8165),
    (sym_mlir_type, STATE 7017), (sym_list, STATE 7017), (sym_set, STATE 7017),
    (sym_tuple, STATE 7017), (sym_dictionary, STATE 7017), (sym_struct_literal, STATE 7017),
    (sym_list_comprehension, STATE 7017), (sym_dictionary_comprehension, STATE 7017),
    (sym_set_comprehension, STATE 7017), (sym_generator_expression, STATE 7017),
    (sym_parenthesized_expression, STATE 7017), (sym_conditional_expression, STATE 7969),
    (sym_concatenated_string, STATE 7017), (sym_string, STATE 6729), (sym_await, STATE 7017),
    (sym_identifier, ACTIONS 327), (anon_sym_import, ACTIONS 11), (anon_sym_from, ACTIONS 13),
    (anon_sym_LPAREN, ACTIONS 329), (anon_sym_STAR, ACTIONS 331), (anon_sym_print, ACTIONS 333),
    (anon_sym_comptime, ACTIONS 335), (anon_sym_assert, ACTIONS 23),
    (anon_sym___comptime_assert, ACTIONS 25), (anon_sym_return, ACTIONS 27),
    (anon_sym_del, ACTIONS 29), (anon_sym_raise, ACTIONS 31), (anon_sym_pass, ACTIONS 33),
    (anon_sym_break, ACTIONS 35), (anon_sym_continue, ACTIONS 37), (anon_sym_match, ACTIONS 337),
    (anon_sym_async, ACTIONS 339), (anon_sym_def, ACTIONS 341), (anon_sym_LBRACK, ACTIONS 343),
    (anon_sym_LBRACE, ACTIONS 61), (anon_sym_STAR_STAR, ACTIONS 345),
    (anon_sym_global, ACTIONS 63), (anon_sym_nonlocal, ACTIONS 65), (anon_sym_exec, ACTIONS 347),
    (anon_sym_type, ACTIONS 349), (anon_sym_mut, ACTIONS 339), (anon_sym_out, ACTIONS 339),
    (anon_sym_DASH, ACTIONS 79), (anon_sym_PLUS, ACTIONS 79), (anon_sym_ref, ACTIONS 81),
    (anon_sym_var, ACTIONS 81), (anon_sym_not, ACTIONS 83), (anon_sym_TILDE, ACTIONS 79),
    (anon_sym_lambda, ACTIONS 85), (anon_sym_yield, ACTIONS 87), (sym_ellipsis, ACTIONS 89),
    (anon_sym___mlir_type, ACTIONS 91), (sym_integer, ACTIONS 93), (sym_float, ACTIONS 89),
    (anon_sym_await, ACTIONS 351), (sym_true, ACTIONS 93), (sym_false, ACTIONS 93),
    (sym_none, ACTIONS 93), (sym_comment, ACTIONS 3), (sym_line_continuation, ACTIONS 3),
    (sym__newline, ACTIONS 1397), (sym__indent, ACTIONS 1399), (sym_string_start, ACTIONS 97)]"

definition parse_table_1191 :: "(nat \<times> nat) list" where "parse_table_1191 = [
    (sym__simple_statements, STATE 5967), (sym_import_statement, STATE 11814),
    (sym_future_import_statement, STATE 11814), (sym_import_from_statement, STATE 11814),
    (sym_print_statement, STATE 11814), (sym_assert_statement, STATE 11814),
    (sym_comptime_assert_statement, STATE 11814), (sym_expression_statement, STATE 11814),
    (sym_tuple_expression, STATE 12425), (sym_named_expression, STATE 7969),
    (sym__named_expression_lhs, STATE 12752), (sym_return_statement, STATE 11814),
    (sym_delete_statement, STATE 11814), (sym_raise_statement, STATE 11814),
    (sym_pass_statement, STATE 11814), (sym_break_statement, STATE 11814),
    (sym_continue_statement, STATE 11814), (sym_global_statement, STATE 11814),
    (sym_nonlocal_statement, STATE 11814), (sym_exec_statement, STATE 11814),
    (sym_type_alias_statement, STATE 11814), (sym_parameterized_alias_statement, STATE 11814),
    (sym_pattern, STATE 8086), (sym_tuple_pattern, STATE 8101), (sym_list_pattern, STATE 8101),
    (sym_list_splat_pattern, STATE 6795), (sym_as_pattern, STATE 7969),
    (sym_expression, STATE 9623), (sym_primary_expression, STATE 7326),
    (sym_comptime_expression, STATE 7017), (sym_transfer_expression, STATE 7017),
    (sym_not_operator, STATE 7969), (sym_boolean_operator, STATE 7969),
    (sym_binary_operator, STATE 7017), (sym_unary_operator, STATE 7017),
    (sym_comparison_operator, STATE 7969), (sym_lambda, STATE 7969),
    (sym_assignment, STATE 12425), (sym_augmented_assignment, STATE 12425),
    (sym_pattern_list, STATE 8578), (sym_yield, STATE 12425), (sym_attribute, STATE 6796),
    (sym_subscript, STATE 6797), (sym_call, STATE 6768), (sym_type, STATE 10130),
    (sym_called_type, STATE 9093), (sym_function_type, STATE 9093), (sym_splat_type, STATE 9093),
    (sym_generic_type, STATE 8287), (sym_union_type, STATE 9093),
    (sym_intersection_type, STATE 9093), (sym__intersection_operand, STATE 12294),
    (sym_constrained_type, STATE 9093), (sym_member_type, STATE 8165),
    (sym_mlir_type, STATE 7017), (sym_list, STATE 7017), (sym_set, STATE 7017),
    (sym_tuple, STATE 7017), (sym_dictionary, STATE 7017), (sym_struct_literal, STATE 7017),
    (sym_list_comprehension, STATE 7017), (sym_dictionary_comprehension, STATE 7017),
    (sym_set_comprehension, STATE 7017), (sym_generator_expression, STATE 7017),
    (sym_parenthesized_expression, STATE 7017), (sym_conditional_expression, STATE 7969),
    (sym_concatenated_string, STATE 7017), (sym_string, STATE 6729), (sym_await, STATE 7017),
    (sym_identifier, ACTIONS 327), (anon_sym_import, ACTIONS 11), (anon_sym_from, ACTIONS 13),
    (anon_sym_LPAREN, ACTIONS 329), (anon_sym_STAR, ACTIONS 331), (anon_sym_print, ACTIONS 333),
    (anon_sym_comptime, ACTIONS 335), (anon_sym_assert, ACTIONS 23),
    (anon_sym___comptime_assert, ACTIONS 25), (anon_sym_return, ACTIONS 27),
    (anon_sym_del, ACTIONS 29), (anon_sym_raise, ACTIONS 31), (anon_sym_pass, ACTIONS 33),
    (anon_sym_break, ACTIONS 35), (anon_sym_continue, ACTIONS 37), (anon_sym_match, ACTIONS 337),
    (anon_sym_async, ACTIONS 339), (anon_sym_def, ACTIONS 341), (anon_sym_LBRACK, ACTIONS 343),
    (anon_sym_LBRACE, ACTIONS 61), (anon_sym_STAR_STAR, ACTIONS 345),
    (anon_sym_global, ACTIONS 63), (anon_sym_nonlocal, ACTIONS 65), (anon_sym_exec, ACTIONS 347),
    (anon_sym_type, ACTIONS 349), (anon_sym_mut, ACTIONS 339), (anon_sym_out, ACTIONS 339),
    (anon_sym_DASH, ACTIONS 79), (anon_sym_PLUS, ACTIONS 79), (anon_sym_ref, ACTIONS 81),
    (anon_sym_var, ACTIONS 81), (anon_sym_not, ACTIONS 83), (anon_sym_TILDE, ACTIONS 79),
    (anon_sym_lambda, ACTIONS 85), (anon_sym_yield, ACTIONS 87), (sym_ellipsis, ACTIONS 89),
    (anon_sym___mlir_type, ACTIONS 91), (sym_integer, ACTIONS 93), (sym_float, ACTIONS 89),
    (anon_sym_await, ACTIONS 351), (sym_true, ACTIONS 93), (sym_false, ACTIONS 93),
    (sym_none, ACTIONS 93), (sym_comment, ACTIONS 3), (sym_line_continuation, ACTIONS 3),
    (sym__newline, ACTIONS 1401), (sym__indent, ACTIONS 1403), (sym_string_start, ACTIONS 97)]"

definition parse_table_1192 :: "(nat \<times> nat) list" where "parse_table_1192 = [
    (sym__simple_statements, STATE 4760), (sym_import_statement, STATE 11814),
    (sym_future_import_statement, STATE 11814), (sym_import_from_statement, STATE 11814),
    (sym_print_statement, STATE 11814), (sym_assert_statement, STATE 11814),
    (sym_comptime_assert_statement, STATE 11814), (sym_expression_statement, STATE 11814),
    (sym_tuple_expression, STATE 12425), (sym_named_expression, STATE 7969),
    (sym__named_expression_lhs, STATE 12752), (sym_return_statement, STATE 11814),
    (sym_delete_statement, STATE 11814), (sym_raise_statement, STATE 11814),
    (sym_pass_statement, STATE 11814), (sym_break_statement, STATE 11814),
    (sym_continue_statement, STATE 11814), (sym_global_statement, STATE 11814),
    (sym_nonlocal_statement, STATE 11814), (sym_exec_statement, STATE 11814),
    (sym_type_alias_statement, STATE 11814), (sym_parameterized_alias_statement, STATE 11814),
    (sym_pattern, STATE 8086), (sym_tuple_pattern, STATE 8101), (sym_list_pattern, STATE 8101),
    (sym_list_splat_pattern, STATE 6795), (sym_as_pattern, STATE 7969),
    (sym_expression, STATE 9623), (sym_primary_expression, STATE 7326),
    (sym_comptime_expression, STATE 7017), (sym_transfer_expression, STATE 7017),
    (sym_not_operator, STATE 7969), (sym_boolean_operator, STATE 7969),
    (sym_binary_operator, STATE 7017), (sym_unary_operator, STATE 7017),
    (sym_comparison_operator, STATE 7969), (sym_lambda, STATE 7969),
    (sym_assignment, STATE 12425), (sym_augmented_assignment, STATE 12425),
    (sym_pattern_list, STATE 8578), (sym_yield, STATE 12425), (sym_attribute, STATE 6796),
    (sym_subscript, STATE 6797), (sym_call, STATE 6768), (sym_type, STATE 10130),
    (sym_called_type, STATE 9093), (sym_function_type, STATE 9093), (sym_splat_type, STATE 9093),
    (sym_generic_type, STATE 8287), (sym_union_type, STATE 9093),
    (sym_intersection_type, STATE 9093), (sym__intersection_operand, STATE 12294),
    (sym_constrained_type, STATE 9093), (sym_member_type, STATE 8165),
    (sym_mlir_type, STATE 7017), (sym_list, STATE 7017), (sym_set, STATE 7017),
    (sym_tuple, STATE 7017), (sym_dictionary, STATE 7017), (sym_struct_literal, STATE 7017),
    (sym_list_comprehension, STATE 7017), (sym_dictionary_comprehension, STATE 7017),
    (sym_set_comprehension, STATE 7017), (sym_generator_expression, STATE 7017),
    (sym_parenthesized_expression, STATE 7017), (sym_conditional_expression, STATE 7969),
    (sym_concatenated_string, STATE 7017), (sym_string, STATE 6729), (sym_await, STATE 7017),
    (sym_identifier, ACTIONS 327), (anon_sym_import, ACTIONS 11), (anon_sym_from, ACTIONS 13),
    (anon_sym_LPAREN, ACTIONS 329), (anon_sym_STAR, ACTIONS 331), (anon_sym_print, ACTIONS 333),
    (anon_sym_comptime, ACTIONS 335), (anon_sym_assert, ACTIONS 23),
    (anon_sym___comptime_assert, ACTIONS 25), (anon_sym_return, ACTIONS 27),
    (anon_sym_del, ACTIONS 29), (anon_sym_raise, ACTIONS 31), (anon_sym_pass, ACTIONS 33),
    (anon_sym_break, ACTIONS 35), (anon_sym_continue, ACTIONS 37), (anon_sym_match, ACTIONS 337),
    (anon_sym_async, ACTIONS 339), (anon_sym_def, ACTIONS 341), (anon_sym_LBRACK, ACTIONS 343),
    (anon_sym_LBRACE, ACTIONS 61), (anon_sym_STAR_STAR, ACTIONS 345),
    (anon_sym_global, ACTIONS 63), (anon_sym_nonlocal, ACTIONS 65), (anon_sym_exec, ACTIONS 347),
    (anon_sym_type, ACTIONS 349), (anon_sym_mut, ACTIONS 339), (anon_sym_out, ACTIONS 339),
    (anon_sym_DASH, ACTIONS 79), (anon_sym_PLUS, ACTIONS 79), (anon_sym_ref, ACTIONS 81),
    (anon_sym_var, ACTIONS 81), (anon_sym_not, ACTIONS 83), (anon_sym_TILDE, ACTIONS 79),
    (anon_sym_lambda, ACTIONS 85), (anon_sym_yield, ACTIONS 87), (sym_ellipsis, ACTIONS 89),
    (anon_sym___mlir_type, ACTIONS 91), (sym_integer, ACTIONS 93), (sym_float, ACTIONS 89),
    (anon_sym_await, ACTIONS 351), (sym_true, ACTIONS 93), (sym_false, ACTIONS 93),
    (sym_none, ACTIONS 93), (sym_comment, ACTIONS 3), (sym_line_continuation, ACTIONS 3),
    (sym__newline, ACTIONS 1405), (sym__indent, ACTIONS 1407), (sym_string_start, ACTIONS 97)]"

definition parse_table_1193 :: "(nat \<times> nat) list" where "parse_table_1193 = [
    (sym__simple_statements, STATE 5526), (sym_import_statement, STATE 12239),
    (sym_future_import_statement, STATE 12239), (sym_import_from_statement, STATE 12239),
    (sym_print_statement, STATE 12239), (sym_assert_statement, STATE 12239),
    (sym_comptime_assert_statement, STATE 12239), (sym_expression_statement, STATE 12239),
    (sym_tuple_expression, STATE 12425), (sym_named_expression, STATE 7969),
    (sym__named_expression_lhs, STATE 12752), (sym_return_statement, STATE 12239),
    (sym_delete_statement, STATE 12239), (sym_raise_statement, STATE 12239),
    (sym_pass_statement, STATE 12239), (sym_break_statement, STATE 12239),
    (sym_continue_statement, STATE 12239), (sym_global_statement, STATE 12239),
    (sym_nonlocal_statement, STATE 12239), (sym_exec_statement, STATE 12239),
    (sym_type_alias_statement, STATE 12239), (sym_parameterized_alias_statement, STATE 12239),
    (sym_pattern, STATE 8086), (sym_tuple_pattern, STATE 8101), (sym_list_pattern, STATE 8101),
    (sym_list_splat_pattern, STATE 6795), (sym_as_pattern, STATE 7969),
    (sym_expression, STATE 9623), (sym_primary_expression, STATE 7326),
    (sym_comptime_expression, STATE 7017), (sym_transfer_expression, STATE 7017),
    (sym_not_operator, STATE 7969), (sym_boolean_operator, STATE 7969),
    (sym_binary_operator, STATE 7017), (sym_unary_operator, STATE 7017),
    (sym_comparison_operator, STATE 7969), (sym_lambda, STATE 7969),
    (sym_assignment, STATE 12425), (sym_augmented_assignment, STATE 12425),
    (sym_pattern_list, STATE 8578), (sym_yield, STATE 12425), (sym_attribute, STATE 6796),
    (sym_subscript, STATE 6797), (sym_call, STATE 6768), (sym_type, STATE 10130),
    (sym_called_type, STATE 9093), (sym_function_type, STATE 9093), (sym_splat_type, STATE 9093),
    (sym_generic_type, STATE 8287), (sym_union_type, STATE 9093),
    (sym_intersection_type, STATE 9093), (sym__intersection_operand, STATE 12294),
    (sym_constrained_type, STATE 9093), (sym_member_type, STATE 8165),
    (sym_mlir_type, STATE 7017), (sym_list, STATE 7017), (sym_set, STATE 7017),
    (sym_tuple, STATE 7017), (sym_dictionary, STATE 7017), (sym_struct_literal, STATE 7017),
    (sym_list_comprehension, STATE 7017), (sym_dictionary_comprehension, STATE 7017),
    (sym_set_comprehension, STATE 7017), (sym_generator_expression, STATE 7017),
    (sym_parenthesized_expression, STATE 7017), (sym_conditional_expression, STATE 7969),
    (sym_concatenated_string, STATE 7017), (sym_string, STATE 6729), (sym_await, STATE 7017),
    (sym_identifier, ACTIONS 327), (anon_sym_import, ACTIONS 11), (anon_sym_from, ACTIONS 13),
    (anon_sym_LPAREN, ACTIONS 329), (anon_sym_STAR, ACTIONS 331), (anon_sym_print, ACTIONS 333),
    (anon_sym_comptime, ACTIONS 335), (anon_sym_assert, ACTIONS 23),
    (anon_sym___comptime_assert, ACTIONS 25), (anon_sym_return, ACTIONS 27),
    (anon_sym_del, ACTIONS 29), (anon_sym_raise, ACTIONS 31), (anon_sym_pass, ACTIONS 33),
    (anon_sym_break, ACTIONS 35), (anon_sym_continue, ACTIONS 37), (anon_sym_match, ACTIONS 337),
    (anon_sym_async, ACTIONS 339), (anon_sym_def, ACTIONS 341), (anon_sym_LBRACK, ACTIONS 343),
    (anon_sym_LBRACE, ACTIONS 61), (anon_sym_STAR_STAR, ACTIONS 345),
    (anon_sym_global, ACTIONS 63), (anon_sym_nonlocal, ACTIONS 65), (anon_sym_exec, ACTIONS 347),
    (anon_sym_type, ACTIONS 349), (anon_sym_mut, ACTIONS 339), (anon_sym_out, ACTIONS 339),
    (anon_sym_DASH, ACTIONS 79), (anon_sym_PLUS, ACTIONS 79), (anon_sym_ref, ACTIONS 81),
    (anon_sym_var, ACTIONS 81), (anon_sym_not, ACTIONS 83), (anon_sym_TILDE, ACTIONS 79),
    (anon_sym_lambda, ACTIONS 85), (anon_sym_yield, ACTIONS 87), (sym_ellipsis, ACTIONS 89),
    (anon_sym___mlir_type, ACTIONS 91), (sym_integer, ACTIONS 93), (sym_float, ACTIONS 89),
    (anon_sym_await, ACTIONS 351), (sym_true, ACTIONS 93), (sym_false, ACTIONS 93),
    (sym_none, ACTIONS 93), (sym_comment, ACTIONS 3), (sym_line_continuation, ACTIONS 3),
    (sym__newline, ACTIONS 1409), (sym__indent, ACTIONS 1411), (sym_string_start, ACTIONS 97)]"

definition parse_table_1194 :: "(nat \<times> nat) list" where "parse_table_1194 = [
    (sym__simple_statements, STATE 5976), (sym_import_statement, STATE 11814),
    (sym_future_import_statement, STATE 11814), (sym_import_from_statement, STATE 11814),
    (sym_print_statement, STATE 11814), (sym_assert_statement, STATE 11814),
    (sym_comptime_assert_statement, STATE 11814), (sym_expression_statement, STATE 11814),
    (sym_tuple_expression, STATE 12425), (sym_named_expression, STATE 7969),
    (sym__named_expression_lhs, STATE 12752), (sym_return_statement, STATE 11814),
    (sym_delete_statement, STATE 11814), (sym_raise_statement, STATE 11814),
    (sym_pass_statement, STATE 11814), (sym_break_statement, STATE 11814),
    (sym_continue_statement, STATE 11814), (sym_global_statement, STATE 11814),
    (sym_nonlocal_statement, STATE 11814), (sym_exec_statement, STATE 11814),
    (sym_type_alias_statement, STATE 11814), (sym_parameterized_alias_statement, STATE 11814),
    (sym_pattern, STATE 8086), (sym_tuple_pattern, STATE 8101), (sym_list_pattern, STATE 8101),
    (sym_list_splat_pattern, STATE 6795), (sym_as_pattern, STATE 7969),
    (sym_expression, STATE 9623), (sym_primary_expression, STATE 7326),
    (sym_comptime_expression, STATE 7017), (sym_transfer_expression, STATE 7017),
    (sym_not_operator, STATE 7969), (sym_boolean_operator, STATE 7969),
    (sym_binary_operator, STATE 7017), (sym_unary_operator, STATE 7017),
    (sym_comparison_operator, STATE 7969), (sym_lambda, STATE 7969),
    (sym_assignment, STATE 12425), (sym_augmented_assignment, STATE 12425),
    (sym_pattern_list, STATE 8578), (sym_yield, STATE 12425), (sym_attribute, STATE 6796),
    (sym_subscript, STATE 6797), (sym_call, STATE 6768), (sym_type, STATE 10130),
    (sym_called_type, STATE 9093), (sym_function_type, STATE 9093), (sym_splat_type, STATE 9093),
    (sym_generic_type, STATE 8287), (sym_union_type, STATE 9093),
    (sym_intersection_type, STATE 9093), (sym__intersection_operand, STATE 12294),
    (sym_constrained_type, STATE 9093), (sym_member_type, STATE 8165),
    (sym_mlir_type, STATE 7017), (sym_list, STATE 7017), (sym_set, STATE 7017),
    (sym_tuple, STATE 7017), (sym_dictionary, STATE 7017), (sym_struct_literal, STATE 7017),
    (sym_list_comprehension, STATE 7017), (sym_dictionary_comprehension, STATE 7017),
    (sym_set_comprehension, STATE 7017), (sym_generator_expression, STATE 7017),
    (sym_parenthesized_expression, STATE 7017), (sym_conditional_expression, STATE 7969),
    (sym_concatenated_string, STATE 7017), (sym_string, STATE 6729), (sym_await, STATE 7017),
    (sym_identifier, ACTIONS 327), (anon_sym_import, ACTIONS 11), (anon_sym_from, ACTIONS 13),
    (anon_sym_LPAREN, ACTIONS 329), (anon_sym_STAR, ACTIONS 331), (anon_sym_print, ACTIONS 333),
    (anon_sym_comptime, ACTIONS 335), (anon_sym_assert, ACTIONS 23),
    (anon_sym___comptime_assert, ACTIONS 25), (anon_sym_return, ACTIONS 27),
    (anon_sym_del, ACTIONS 29), (anon_sym_raise, ACTIONS 31), (anon_sym_pass, ACTIONS 33),
    (anon_sym_break, ACTIONS 35), (anon_sym_continue, ACTIONS 37), (anon_sym_match, ACTIONS 337),
    (anon_sym_async, ACTIONS 339), (anon_sym_def, ACTIONS 341), (anon_sym_LBRACK, ACTIONS 343),
    (anon_sym_LBRACE, ACTIONS 61), (anon_sym_STAR_STAR, ACTIONS 345),
    (anon_sym_global, ACTIONS 63), (anon_sym_nonlocal, ACTIONS 65), (anon_sym_exec, ACTIONS 347),
    (anon_sym_type, ACTIONS 349), (anon_sym_mut, ACTIONS 339), (anon_sym_out, ACTIONS 339),
    (anon_sym_DASH, ACTIONS 79), (anon_sym_PLUS, ACTIONS 79), (anon_sym_ref, ACTIONS 81),
    (anon_sym_var, ACTIONS 81), (anon_sym_not, ACTIONS 83), (anon_sym_TILDE, ACTIONS 79),
    (anon_sym_lambda, ACTIONS 85), (anon_sym_yield, ACTIONS 87), (sym_ellipsis, ACTIONS 89),
    (anon_sym___mlir_type, ACTIONS 91), (sym_integer, ACTIONS 93), (sym_float, ACTIONS 89),
    (anon_sym_await, ACTIONS 351), (sym_true, ACTIONS 93), (sym_false, ACTIONS 93),
    (sym_none, ACTIONS 93), (sym_comment, ACTIONS 3), (sym_line_continuation, ACTIONS 3),
    (sym__newline, ACTIONS 1413), (sym__indent, ACTIONS 1415), (sym_string_start, ACTIONS 97)]"

definition parse_table_1195 :: "(nat \<times> nat) list" where "parse_table_1195 = [
    (sym__simple_statements, STATE 4420), (sym_import_statement, STATE 11814),
    (sym_future_import_statement, STATE 11814), (sym_import_from_statement, STATE 11814),
    (sym_print_statement, STATE 11814), (sym_assert_statement, STATE 11814),
    (sym_comptime_assert_statement, STATE 11814), (sym_expression_statement, STATE 11814),
    (sym_tuple_expression, STATE 12425), (sym_named_expression, STATE 7969),
    (sym__named_expression_lhs, STATE 12752), (sym_return_statement, STATE 11814),
    (sym_delete_statement, STATE 11814), (sym_raise_statement, STATE 11814),
    (sym_pass_statement, STATE 11814), (sym_break_statement, STATE 11814),
    (sym_continue_statement, STATE 11814), (sym_global_statement, STATE 11814),
    (sym_nonlocal_statement, STATE 11814), (sym_exec_statement, STATE 11814),
    (sym_type_alias_statement, STATE 11814), (sym_parameterized_alias_statement, STATE 11814),
    (sym_pattern, STATE 8086), (sym_tuple_pattern, STATE 8101), (sym_list_pattern, STATE 8101),
    (sym_list_splat_pattern, STATE 6795), (sym_as_pattern, STATE 7969),
    (sym_expression, STATE 9623), (sym_primary_expression, STATE 7326),
    (sym_comptime_expression, STATE 7017), (sym_transfer_expression, STATE 7017),
    (sym_not_operator, STATE 7969), (sym_boolean_operator, STATE 7969),
    (sym_binary_operator, STATE 7017), (sym_unary_operator, STATE 7017),
    (sym_comparison_operator, STATE 7969), (sym_lambda, STATE 7969),
    (sym_assignment, STATE 12425), (sym_augmented_assignment, STATE 12425),
    (sym_pattern_list, STATE 8578), (sym_yield, STATE 12425), (sym_attribute, STATE 6796),
    (sym_subscript, STATE 6797), (sym_call, STATE 6768), (sym_type, STATE 10130),
    (sym_called_type, STATE 9093), (sym_function_type, STATE 9093), (sym_splat_type, STATE 9093),
    (sym_generic_type, STATE 8287), (sym_union_type, STATE 9093),
    (sym_intersection_type, STATE 9093), (sym__intersection_operand, STATE 12294),
    (sym_constrained_type, STATE 9093), (sym_member_type, STATE 8165),
    (sym_mlir_type, STATE 7017), (sym_list, STATE 7017), (sym_set, STATE 7017),
    (sym_tuple, STATE 7017), (sym_dictionary, STATE 7017), (sym_struct_literal, STATE 7017),
    (sym_list_comprehension, STATE 7017), (sym_dictionary_comprehension, STATE 7017),
    (sym_set_comprehension, STATE 7017), (sym_generator_expression, STATE 7017),
    (sym_parenthesized_expression, STATE 7017), (sym_conditional_expression, STATE 7969),
    (sym_concatenated_string, STATE 7017), (sym_string, STATE 6729), (sym_await, STATE 7017),
    (sym_identifier, ACTIONS 327), (anon_sym_import, ACTIONS 11), (anon_sym_from, ACTIONS 13),
    (anon_sym_LPAREN, ACTIONS 329), (anon_sym_STAR, ACTIONS 331), (anon_sym_print, ACTIONS 333),
    (anon_sym_comptime, ACTIONS 335), (anon_sym_assert, ACTIONS 23),
    (anon_sym___comptime_assert, ACTIONS 25), (anon_sym_return, ACTIONS 27),
    (anon_sym_del, ACTIONS 29), (anon_sym_raise, ACTIONS 31), (anon_sym_pass, ACTIONS 33),
    (anon_sym_break, ACTIONS 35), (anon_sym_continue, ACTIONS 37), (anon_sym_match, ACTIONS 337),
    (anon_sym_async, ACTIONS 339), (anon_sym_def, ACTIONS 341), (anon_sym_LBRACK, ACTIONS 343),
    (anon_sym_LBRACE, ACTIONS 61), (anon_sym_STAR_STAR, ACTIONS 345),
    (anon_sym_global, ACTIONS 63), (anon_sym_nonlocal, ACTIONS 65), (anon_sym_exec, ACTIONS 347),
    (anon_sym_type, ACTIONS 349), (anon_sym_mut, ACTIONS 339), (anon_sym_out, ACTIONS 339),
    (anon_sym_DASH, ACTIONS 79), (anon_sym_PLUS, ACTIONS 79), (anon_sym_ref, ACTIONS 81),
    (anon_sym_var, ACTIONS 81), (anon_sym_not, ACTIONS 83), (anon_sym_TILDE, ACTIONS 79),
    (anon_sym_lambda, ACTIONS 85), (anon_sym_yield, ACTIONS 87), (sym_ellipsis, ACTIONS 89),
    (anon_sym___mlir_type, ACTIONS 91), (sym_integer, ACTIONS 93), (sym_float, ACTIONS 89),
    (anon_sym_await, ACTIONS 351), (sym_true, ACTIONS 93), (sym_false, ACTIONS 93),
    (sym_none, ACTIONS 93), (sym_comment, ACTIONS 3), (sym_line_continuation, ACTIONS 3),
    (sym__newline, ACTIONS 1417), (sym__indent, ACTIONS 1419), (sym_string_start, ACTIONS 97)]"

definition parse_table_1196 :: "(nat \<times> nat) list" where "parse_table_1196 = [
    (sym__simple_statements, STATE 6384), (sym_import_statement, STATE 12239),
    (sym_future_import_statement, STATE 12239), (sym_import_from_statement, STATE 12239),
    (sym_print_statement, STATE 12239), (sym_assert_statement, STATE 12239),
    (sym_comptime_assert_statement, STATE 12239), (sym_expression_statement, STATE 12239),
    (sym_tuple_expression, STATE 12425), (sym_named_expression, STATE 7969),
    (sym__named_expression_lhs, STATE 12752), (sym_return_statement, STATE 12239),
    (sym_delete_statement, STATE 12239), (sym_raise_statement, STATE 12239),
    (sym_pass_statement, STATE 12239), (sym_break_statement, STATE 12239),
    (sym_continue_statement, STATE 12239), (sym_global_statement, STATE 12239),
    (sym_nonlocal_statement, STATE 12239), (sym_exec_statement, STATE 12239),
    (sym_type_alias_statement, STATE 12239), (sym_parameterized_alias_statement, STATE 12239),
    (sym_pattern, STATE 8086), (sym_tuple_pattern, STATE 8101), (sym_list_pattern, STATE 8101),
    (sym_list_splat_pattern, STATE 6795), (sym_as_pattern, STATE 7969),
    (sym_expression, STATE 9623), (sym_primary_expression, STATE 7326),
    (sym_comptime_expression, STATE 7017), (sym_transfer_expression, STATE 7017),
    (sym_not_operator, STATE 7969), (sym_boolean_operator, STATE 7969),
    (sym_binary_operator, STATE 7017), (sym_unary_operator, STATE 7017),
    (sym_comparison_operator, STATE 7969), (sym_lambda, STATE 7969),
    (sym_assignment, STATE 12425), (sym_augmented_assignment, STATE 12425),
    (sym_pattern_list, STATE 8578), (sym_yield, STATE 12425), (sym_attribute, STATE 6796),
    (sym_subscript, STATE 6797), (sym_call, STATE 6768), (sym_type, STATE 10130),
    (sym_called_type, STATE 9093), (sym_function_type, STATE 9093), (sym_splat_type, STATE 9093),
    (sym_generic_type, STATE 8287), (sym_union_type, STATE 9093),
    (sym_intersection_type, STATE 9093), (sym__intersection_operand, STATE 12294),
    (sym_constrained_type, STATE 9093), (sym_member_type, STATE 8165),
    (sym_mlir_type, STATE 7017), (sym_list, STATE 7017), (sym_set, STATE 7017),
    (sym_tuple, STATE 7017), (sym_dictionary, STATE 7017), (sym_struct_literal, STATE 7017),
    (sym_list_comprehension, STATE 7017), (sym_dictionary_comprehension, STATE 7017),
    (sym_set_comprehension, STATE 7017), (sym_generator_expression, STATE 7017),
    (sym_parenthesized_expression, STATE 7017), (sym_conditional_expression, STATE 7969),
    (sym_concatenated_string, STATE 7017), (sym_string, STATE 6729), (sym_await, STATE 7017),
    (sym_identifier, ACTIONS 327), (anon_sym_import, ACTIONS 11), (anon_sym_from, ACTIONS 13),
    (anon_sym_LPAREN, ACTIONS 329), (anon_sym_STAR, ACTIONS 331), (anon_sym_print, ACTIONS 333),
    (anon_sym_comptime, ACTIONS 335), (anon_sym_assert, ACTIONS 23),
    (anon_sym___comptime_assert, ACTIONS 25), (anon_sym_return, ACTIONS 27),
    (anon_sym_del, ACTIONS 29), (anon_sym_raise, ACTIONS 31), (anon_sym_pass, ACTIONS 33),
    (anon_sym_break, ACTIONS 35), (anon_sym_continue, ACTIONS 37), (anon_sym_match, ACTIONS 337),
    (anon_sym_async, ACTIONS 339), (anon_sym_def, ACTIONS 341), (anon_sym_LBRACK, ACTIONS 343),
    (anon_sym_LBRACE, ACTIONS 61), (anon_sym_STAR_STAR, ACTIONS 345),
    (anon_sym_global, ACTIONS 63), (anon_sym_nonlocal, ACTIONS 65), (anon_sym_exec, ACTIONS 347),
    (anon_sym_type, ACTIONS 349), (anon_sym_mut, ACTIONS 339), (anon_sym_out, ACTIONS 339),
    (anon_sym_DASH, ACTIONS 79), (anon_sym_PLUS, ACTIONS 79), (anon_sym_ref, ACTIONS 81),
    (anon_sym_var, ACTIONS 81), (anon_sym_not, ACTIONS 83), (anon_sym_TILDE, ACTIONS 79),
    (anon_sym_lambda, ACTIONS 85), (anon_sym_yield, ACTIONS 87), (sym_ellipsis, ACTIONS 89),
    (anon_sym___mlir_type, ACTIONS 91), (sym_integer, ACTIONS 93), (sym_float, ACTIONS 89),
    (anon_sym_await, ACTIONS 351), (sym_true, ACTIONS 93), (sym_false, ACTIONS 93),
    (sym_none, ACTIONS 93), (sym_comment, ACTIONS 3), (sym_line_continuation, ACTIONS 3),
    (sym__newline, ACTIONS 1421), (sym__indent, ACTIONS 1423), (sym_string_start, ACTIONS 97)]"

definition parse_table_1197 :: "(nat \<times> nat) list" where "parse_table_1197 = [
    (sym__simple_statements, STATE 4769), (sym_import_statement, STATE 11814),
    (sym_future_import_statement, STATE 11814), (sym_import_from_statement, STATE 11814),
    (sym_print_statement, STATE 11814), (sym_assert_statement, STATE 11814),
    (sym_comptime_assert_statement, STATE 11814), (sym_expression_statement, STATE 11814),
    (sym_tuple_expression, STATE 12425), (sym_named_expression, STATE 7969),
    (sym__named_expression_lhs, STATE 12752), (sym_return_statement, STATE 11814),
    (sym_delete_statement, STATE 11814), (sym_raise_statement, STATE 11814),
    (sym_pass_statement, STATE 11814), (sym_break_statement, STATE 11814),
    (sym_continue_statement, STATE 11814), (sym_global_statement, STATE 11814),
    (sym_nonlocal_statement, STATE 11814), (sym_exec_statement, STATE 11814),
    (sym_type_alias_statement, STATE 11814), (sym_parameterized_alias_statement, STATE 11814),
    (sym_pattern, STATE 8086), (sym_tuple_pattern, STATE 8101), (sym_list_pattern, STATE 8101),
    (sym_list_splat_pattern, STATE 6795), (sym_as_pattern, STATE 7969),
    (sym_expression, STATE 9623), (sym_primary_expression, STATE 7326),
    (sym_comptime_expression, STATE 7017), (sym_transfer_expression, STATE 7017),
    (sym_not_operator, STATE 7969), (sym_boolean_operator, STATE 7969),
    (sym_binary_operator, STATE 7017), (sym_unary_operator, STATE 7017),
    (sym_comparison_operator, STATE 7969), (sym_lambda, STATE 7969),
    (sym_assignment, STATE 12425), (sym_augmented_assignment, STATE 12425),
    (sym_pattern_list, STATE 8578), (sym_yield, STATE 12425), (sym_attribute, STATE 6796),
    (sym_subscript, STATE 6797), (sym_call, STATE 6768), (sym_type, STATE 10130),
    (sym_called_type, STATE 9093), (sym_function_type, STATE 9093), (sym_splat_type, STATE 9093),
    (sym_generic_type, STATE 8287), (sym_union_type, STATE 9093),
    (sym_intersection_type, STATE 9093), (sym__intersection_operand, STATE 12294),
    (sym_constrained_type, STATE 9093), (sym_member_type, STATE 8165),
    (sym_mlir_type, STATE 7017), (sym_list, STATE 7017), (sym_set, STATE 7017),
    (sym_tuple, STATE 7017), (sym_dictionary, STATE 7017), (sym_struct_literal, STATE 7017),
    (sym_list_comprehension, STATE 7017), (sym_dictionary_comprehension, STATE 7017),
    (sym_set_comprehension, STATE 7017), (sym_generator_expression, STATE 7017),
    (sym_parenthesized_expression, STATE 7017), (sym_conditional_expression, STATE 7969),
    (sym_concatenated_string, STATE 7017), (sym_string, STATE 6729), (sym_await, STATE 7017),
    (sym_identifier, ACTIONS 327), (anon_sym_import, ACTIONS 11), (anon_sym_from, ACTIONS 13),
    (anon_sym_LPAREN, ACTIONS 329), (anon_sym_STAR, ACTIONS 331), (anon_sym_print, ACTIONS 333),
    (anon_sym_comptime, ACTIONS 335), (anon_sym_assert, ACTIONS 23),
    (anon_sym___comptime_assert, ACTIONS 25), (anon_sym_return, ACTIONS 27),
    (anon_sym_del, ACTIONS 29), (anon_sym_raise, ACTIONS 31), (anon_sym_pass, ACTIONS 33),
    (anon_sym_break, ACTIONS 35), (anon_sym_continue, ACTIONS 37), (anon_sym_match, ACTIONS 337),
    (anon_sym_async, ACTIONS 339), (anon_sym_def, ACTIONS 341), (anon_sym_LBRACK, ACTIONS 343),
    (anon_sym_LBRACE, ACTIONS 61), (anon_sym_STAR_STAR, ACTIONS 345),
    (anon_sym_global, ACTIONS 63), (anon_sym_nonlocal, ACTIONS 65), (anon_sym_exec, ACTIONS 347),
    (anon_sym_type, ACTIONS 349), (anon_sym_mut, ACTIONS 339), (anon_sym_out, ACTIONS 339),
    (anon_sym_DASH, ACTIONS 79), (anon_sym_PLUS, ACTIONS 79), (anon_sym_ref, ACTIONS 81),
    (anon_sym_var, ACTIONS 81), (anon_sym_not, ACTIONS 83), (anon_sym_TILDE, ACTIONS 79),
    (anon_sym_lambda, ACTIONS 85), (anon_sym_yield, ACTIONS 87), (sym_ellipsis, ACTIONS 89),
    (anon_sym___mlir_type, ACTIONS 91), (sym_integer, ACTIONS 93), (sym_float, ACTIONS 89),
    (anon_sym_await, ACTIONS 351), (sym_true, ACTIONS 93), (sym_false, ACTIONS 93),
    (sym_none, ACTIONS 93), (sym_comment, ACTIONS 3), (sym_line_continuation, ACTIONS 3),
    (sym__newline, ACTIONS 1425), (sym__indent, ACTIONS 1427), (sym_string_start, ACTIONS 97)]"

definition parse_table_1198 :: "(nat \<times> nat) list" where "parse_table_1198 = [
    (sym__simple_statements, STATE 5987), (sym_import_statement, STATE 11814),
    (sym_future_import_statement, STATE 11814), (sym_import_from_statement, STATE 11814),
    (sym_print_statement, STATE 11814), (sym_assert_statement, STATE 11814),
    (sym_comptime_assert_statement, STATE 11814), (sym_expression_statement, STATE 11814),
    (sym_tuple_expression, STATE 12425), (sym_named_expression, STATE 7969),
    (sym__named_expression_lhs, STATE 12752), (sym_return_statement, STATE 11814),
    (sym_delete_statement, STATE 11814), (sym_raise_statement, STATE 11814),
    (sym_pass_statement, STATE 11814), (sym_break_statement, STATE 11814),
    (sym_continue_statement, STATE 11814), (sym_global_statement, STATE 11814),
    (sym_nonlocal_statement, STATE 11814), (sym_exec_statement, STATE 11814),
    (sym_type_alias_statement, STATE 11814), (sym_parameterized_alias_statement, STATE 11814),
    (sym_pattern, STATE 8086), (sym_tuple_pattern, STATE 8101), (sym_list_pattern, STATE 8101),
    (sym_list_splat_pattern, STATE 6795), (sym_as_pattern, STATE 7969),
    (sym_expression, STATE 9623), (sym_primary_expression, STATE 7326),
    (sym_comptime_expression, STATE 7017), (sym_transfer_expression, STATE 7017),
    (sym_not_operator, STATE 7969), (sym_boolean_operator, STATE 7969),
    (sym_binary_operator, STATE 7017), (sym_unary_operator, STATE 7017),
    (sym_comparison_operator, STATE 7969), (sym_lambda, STATE 7969),
    (sym_assignment, STATE 12425), (sym_augmented_assignment, STATE 12425),
    (sym_pattern_list, STATE 8578), (sym_yield, STATE 12425), (sym_attribute, STATE 6796),
    (sym_subscript, STATE 6797), (sym_call, STATE 6768), (sym_type, STATE 10130),
    (sym_called_type, STATE 9093), (sym_function_type, STATE 9093), (sym_splat_type, STATE 9093),
    (sym_generic_type, STATE 8287), (sym_union_type, STATE 9093),
    (sym_intersection_type, STATE 9093), (sym__intersection_operand, STATE 12294),
    (sym_constrained_type, STATE 9093), (sym_member_type, STATE 8165),
    (sym_mlir_type, STATE 7017), (sym_list, STATE 7017), (sym_set, STATE 7017),
    (sym_tuple, STATE 7017), (sym_dictionary, STATE 7017), (sym_struct_literal, STATE 7017),
    (sym_list_comprehension, STATE 7017), (sym_dictionary_comprehension, STATE 7017),
    (sym_set_comprehension, STATE 7017), (sym_generator_expression, STATE 7017),
    (sym_parenthesized_expression, STATE 7017), (sym_conditional_expression, STATE 7969),
    (sym_concatenated_string, STATE 7017), (sym_string, STATE 6729), (sym_await, STATE 7017),
    (sym_identifier, ACTIONS 327), (anon_sym_import, ACTIONS 11), (anon_sym_from, ACTIONS 13),
    (anon_sym_LPAREN, ACTIONS 329), (anon_sym_STAR, ACTIONS 331), (anon_sym_print, ACTIONS 333),
    (anon_sym_comptime, ACTIONS 335), (anon_sym_assert, ACTIONS 23),
    (anon_sym___comptime_assert, ACTIONS 25), (anon_sym_return, ACTIONS 27),
    (anon_sym_del, ACTIONS 29), (anon_sym_raise, ACTIONS 31), (anon_sym_pass, ACTIONS 33),
    (anon_sym_break, ACTIONS 35), (anon_sym_continue, ACTIONS 37), (anon_sym_match, ACTIONS 337),
    (anon_sym_async, ACTIONS 339), (anon_sym_def, ACTIONS 341), (anon_sym_LBRACK, ACTIONS 343),
    (anon_sym_LBRACE, ACTIONS 61), (anon_sym_STAR_STAR, ACTIONS 345),
    (anon_sym_global, ACTIONS 63), (anon_sym_nonlocal, ACTIONS 65), (anon_sym_exec, ACTIONS 347),
    (anon_sym_type, ACTIONS 349), (anon_sym_mut, ACTIONS 339), (anon_sym_out, ACTIONS 339),
    (anon_sym_DASH, ACTIONS 79), (anon_sym_PLUS, ACTIONS 79), (anon_sym_ref, ACTIONS 81),
    (anon_sym_var, ACTIONS 81), (anon_sym_not, ACTIONS 83), (anon_sym_TILDE, ACTIONS 79),
    (anon_sym_lambda, ACTIONS 85), (anon_sym_yield, ACTIONS 87), (sym_ellipsis, ACTIONS 89),
    (anon_sym___mlir_type, ACTIONS 91), (sym_integer, ACTIONS 93), (sym_float, ACTIONS 89),
    (anon_sym_await, ACTIONS 351), (sym_true, ACTIONS 93), (sym_false, ACTIONS 93),
    (sym_none, ACTIONS 93), (sym_comment, ACTIONS 3), (sym_line_continuation, ACTIONS 3),
    (sym__newline, ACTIONS 1429), (sym__indent, ACTIONS 1431), (sym_string_start, ACTIONS 97)]"

definition parse_table_1199 :: "(nat \<times> nat) list" where "parse_table_1199 = [
    (sym__simple_statements, STATE 5273), (sym_import_statement, STATE 12239),
    (sym_future_import_statement, STATE 12239), (sym_import_from_statement, STATE 12239),
    (sym_print_statement, STATE 12239), (sym_assert_statement, STATE 12239),
    (sym_comptime_assert_statement, STATE 12239), (sym_expression_statement, STATE 12239),
    (sym_tuple_expression, STATE 12425), (sym_named_expression, STATE 7969),
    (sym__named_expression_lhs, STATE 12752), (sym_return_statement, STATE 12239),
    (sym_delete_statement, STATE 12239), (sym_raise_statement, STATE 12239),
    (sym_pass_statement, STATE 12239), (sym_break_statement, STATE 12239),
    (sym_continue_statement, STATE 12239), (sym_global_statement, STATE 12239),
    (sym_nonlocal_statement, STATE 12239), (sym_exec_statement, STATE 12239),
    (sym_type_alias_statement, STATE 12239), (sym_parameterized_alias_statement, STATE 12239),
    (sym_pattern, STATE 8086), (sym_tuple_pattern, STATE 8101), (sym_list_pattern, STATE 8101),
    (sym_list_splat_pattern, STATE 6795), (sym_as_pattern, STATE 7969),
    (sym_expression, STATE 9623), (sym_primary_expression, STATE 7326),
    (sym_comptime_expression, STATE 7017), (sym_transfer_expression, STATE 7017),
    (sym_not_operator, STATE 7969), (sym_boolean_operator, STATE 7969),
    (sym_binary_operator, STATE 7017), (sym_unary_operator, STATE 7017),
    (sym_comparison_operator, STATE 7969), (sym_lambda, STATE 7969),
    (sym_assignment, STATE 12425), (sym_augmented_assignment, STATE 12425),
    (sym_pattern_list, STATE 8578), (sym_yield, STATE 12425), (sym_attribute, STATE 6796),
    (sym_subscript, STATE 6797), (sym_call, STATE 6768), (sym_type, STATE 10130),
    (sym_called_type, STATE 9093), (sym_function_type, STATE 9093), (sym_splat_type, STATE 9093),
    (sym_generic_type, STATE 8287), (sym_union_type, STATE 9093),
    (sym_intersection_type, STATE 9093), (sym__intersection_operand, STATE 12294),
    (sym_constrained_type, STATE 9093), (sym_member_type, STATE 8165),
    (sym_mlir_type, STATE 7017), (sym_list, STATE 7017), (sym_set, STATE 7017),
    (sym_tuple, STATE 7017), (sym_dictionary, STATE 7017), (sym_struct_literal, STATE 7017),
    (sym_list_comprehension, STATE 7017), (sym_dictionary_comprehension, STATE 7017),
    (sym_set_comprehension, STATE 7017), (sym_generator_expression, STATE 7017),
    (sym_parenthesized_expression, STATE 7017), (sym_conditional_expression, STATE 7969),
    (sym_concatenated_string, STATE 7017), (sym_string, STATE 6729), (sym_await, STATE 7017),
    (sym_identifier, ACTIONS 327), (anon_sym_import, ACTIONS 11), (anon_sym_from, ACTIONS 13),
    (anon_sym_LPAREN, ACTIONS 329), (anon_sym_STAR, ACTIONS 331), (anon_sym_print, ACTIONS 333),
    (anon_sym_comptime, ACTIONS 335), (anon_sym_assert, ACTIONS 23),
    (anon_sym___comptime_assert, ACTIONS 25), (anon_sym_return, ACTIONS 27),
    (anon_sym_del, ACTIONS 29), (anon_sym_raise, ACTIONS 31), (anon_sym_pass, ACTIONS 33),
    (anon_sym_break, ACTIONS 35), (anon_sym_continue, ACTIONS 37), (anon_sym_match, ACTIONS 337),
    (anon_sym_async, ACTIONS 339), (anon_sym_def, ACTIONS 341), (anon_sym_LBRACK, ACTIONS 343),
    (anon_sym_LBRACE, ACTIONS 61), (anon_sym_STAR_STAR, ACTIONS 345),
    (anon_sym_global, ACTIONS 63), (anon_sym_nonlocal, ACTIONS 65), (anon_sym_exec, ACTIONS 347),
    (anon_sym_type, ACTIONS 349), (anon_sym_mut, ACTIONS 339), (anon_sym_out, ACTIONS 339),
    (anon_sym_DASH, ACTIONS 79), (anon_sym_PLUS, ACTIONS 79), (anon_sym_ref, ACTIONS 81),
    (anon_sym_var, ACTIONS 81), (anon_sym_not, ACTIONS 83), (anon_sym_TILDE, ACTIONS 79),
    (anon_sym_lambda, ACTIONS 85), (anon_sym_yield, ACTIONS 87), (sym_ellipsis, ACTIONS 89),
    (anon_sym___mlir_type, ACTIONS 91), (sym_integer, ACTIONS 93), (sym_float, ACTIONS 89),
    (anon_sym_await, ACTIONS 351), (sym_true, ACTIONS 93), (sym_false, ACTIONS 93),
    (sym_none, ACTIONS 93), (sym_comment, ACTIONS 3), (sym_line_continuation, ACTIONS 3),
    (sym__newline, ACTIONS 1433), (sym__indent, ACTIONS 1435), (sym_string_start, ACTIONS 97)]"

end
