(* ===== verification/Mojo_Parse_Rows_8.thy ===== *)
theory Mojo_Parse_Rows_8
  imports Mojo_Grammar Mojo_Table_Macros
begin

text \<open>
  The rows of \<open>ts_parse_table\<close> (\<^verbatim>\<open>grammars/tree-sitter-mojo/src/parser.c\<close>) for the parse states from
  1200 to 1278: for a symbol, the group of actions in \<open>ts_parse_actions\<close> for a token and the next state
  for a nonterminal. Definitions only, one for each state.
\<close>

section \<open>Rows\<close>

definition parse_table_1200 :: "(nat \<times> nat) list" where "parse_table_1200 = [
    (sym__simple_statements, STATE 6393), (sym_import_statement, STATE 12239),
    (sym_future_import_statement, STATE 12239), (sym_import_from_statement, STATE 12239),
    (sym_print_statement, STATE 12239), (sym_assert_statement, STATE 12239),
    (sym_comptime_assert_statement, STATE 12239), (sym_expression_statement, STATE 12239),
    (sym_tuple_expression, STATE 12425), (sym_named_expression, STATE 7969),
    (sym__named_expression_lhs, STATE 12752), (sym_return_statement, STATE 12239),
    (sym_delete_statement, STATE 12239), (sym_raise_statement, STATE 12239),
    (sym_pass_statement, STATE 12239), (sym_break_statement, STATE 12239),
    (sym_continue_statement, STATE 12239), (sym_global_statement, STATE 12239),
    (sym_nonlocal_statement, STATE 12239), (sym_exec_statement, STATE 12239),
    (sym_type_alias_statement, STATE 12239), (sym_parameterized_alias_statement, STATE 12239),
    (sym_pattern, STATE 8086), (sym_tuple_pattern, STATE 8101), (sym_list_pattern, STATE 8101),
    (sym_list_splat_pattern, STATE 6795), (sym_as_pattern, STATE 7969),
    (sym_expression, STATE 9623), (sym_primary_expression, STATE 7326),
    (sym_comptime_expression, STATE 7017), (sym_transfer_expression, STATE 7017),
    (sym_not_operator, STATE 7969), (sym_boolean_operator, STATE 7969),
    (sym_binary_operator, STATE 7017), (sym_unary_operator, STATE 7017),
    (sym_comparison_operator, STATE 7969), (sym_lambda, STATE 7969),
    (sym_assignment, STATE 12425), (sym_augmented_assignment, STATE 12425),
    (sym_pattern_list, STATE 8578), (sym_yield, STATE 12425), (sym_attribute, STATE 6796),
    (sym_subscript, STATE 6797), (sym_call, STATE 6768), (sym_type, STATE 10130),
    (sym_called_type, STATE 9093), (sym_function_type, STATE 9093), (sym_splat_type, STATE 9093),
    (sym_generic_type, STATE 8287), (sym_union_type, STATE 9093),
    (sym_intersection_type, STATE 9093), (sym__intersection_operand, STATE 12294),
    (sym_constrained_type, STATE 9093), (sym_member_type, STATE 8165),
    (sym_mlir_type, STATE 7017), (sym_list, STATE 7017), (sym_set, STATE 7017),
    (sym_tuple, STATE 7017), (sym_dictionary, STATE 7017), (sym_struct_literal, STATE 7017),
    (sym_list_comprehension, STATE 7017), (sym_dictionary_comprehension, STATE 7017),
    (sym_set_comprehension, STATE 7017), (sym_generator_expression, STATE 7017),
    (sym_parenthesized_expression, STATE 7017), (sym_conditional_expression, STATE 7969),
    (sym_concatenated_string, STATE 7017), (sym_string, STATE 6729), (sym_await, STATE 7017),
    (sym_identifier, ACTIONS 327), (anon_sym_import, ACTIONS 11), (anon_sym_from, ACTIONS 13),
    (anon_sym_LPAREN, ACTIONS 329), (anon_sym_STAR, ACTIONS 331), (anon_sym_print, ACTIONS 333),
    (anon_sym_comptime, ACTIONS 335), (anon_sym_assert, ACTIONS 23),
    (anon_sym___comptime_assert, ACTIONS 25), (anon_sym_return, ACTIONS 27),
    (anon_sym_del, ACTIONS 29), (anon_sym_raise, ACTIONS 31), (anon_sym_pass, ACTIONS 33),
    (anon_sym_break, ACTIONS 35), (anon_sym_continue, ACTIONS 37), (anon_sym_match, ACTIONS 337),
    (anon_sym_async, ACTIONS 339), (anon_sym_def, ACTIONS 341), (anon_sym_LBRACK, ACTIONS 343),
    (anon_sym_LBRACE, ACTIONS 61), (anon_sym_STAR_STAR, ACTIONS 345),
    (anon_sym_global, ACTIONS 63), (anon_sym_nonlocal, ACTIONS 65), (anon_sym_exec, ACTIONS 347),
    (anon_sym_type, ACTIONS 349), (anon_sym_mut, ACTIONS 339), (anon_sym_out, ACTIONS 339),
    (anon_sym_DASH, ACTIONS 79), (anon_sym_PLUS, ACTIONS 79), (anon_sym_ref, ACTIONS 81),
    (anon_sym_var, ACTIONS 81), (anon_sym_not, ACTIONS 83), (anon_sym_TILDE, ACTIONS 79),
    (anon_sym_lambda, ACTIONS 85), (anon_sym_yield, ACTIONS 87), (sym_ellipsis, ACTIONS 89),
    (anon_sym___mlir_type, ACTIONS 91), (sym_integer, ACTIONS 93), (sym_float, ACTIONS 89),
    (anon_sym_await, ACTIONS 351), (sym_true, ACTIONS 93), (sym_false, ACTIONS 93),
    (sym_none, ACTIONS 93), (sym_comment, ACTIONS 3), (sym_line_continuation, ACTIONS 3),
    (sym__newline, ACTIONS 1437), (sym__indent, ACTIONS 1439), (sym_string_start, ACTIONS 97)]"

definition parse_table_1201 :: "(nat \<times> nat) list" where "parse_table_1201 = [
    (sym__simple_statements, STATE 6407), (sym_import_statement, STATE 12239),
    (sym_future_import_statement, STATE 12239), (sym_import_from_statement, STATE 12239),
    (sym_print_statement, STATE 12239), (sym_assert_statement, STATE 12239),
    (sym_comptime_assert_statement, STATE 12239), (sym_expression_statement, STATE 12239),
    (sym_tuple_expression, STATE 12425), (sym_named_expression, STATE 7969),
    (sym__named_expression_lhs, STATE 12752), (sym_return_statement, STATE 12239),
    (sym_delete_statement, STATE 12239), (sym_raise_statement, STATE 12239),
    (sym_pass_statement, STATE 12239), (sym_break_statement, STATE 12239),
    (sym_continue_statement, STATE 12239), (sym_global_statement, STATE 12239),
    (sym_nonlocal_statement, STATE 12239), (sym_exec_statement, STATE 12239),
    (sym_type_alias_statement, STATE 12239), (sym_parameterized_alias_statement, STATE 12239),
    (sym_pattern, STATE 8086), (sym_tuple_pattern, STATE 8101), (sym_list_pattern, STATE 8101),
    (sym_list_splat_pattern, STATE 6795), (sym_as_pattern, STATE 7969),
    (sym_expression, STATE 9623), (sym_primary_expression, STATE 7326),
    (sym_comptime_expression, STATE 7017), (sym_transfer_expression, STATE 7017),
    (sym_not_operator, STATE 7969), (sym_boolean_operator, STATE 7969),
    (sym_binary_operator, STATE 7017), (sym_unary_operator, STATE 7017),
    (sym_comparison_operator, STATE 7969), (sym_lambda, STATE 7969),
    (sym_assignment, STATE 12425), (sym_augmented_assignment, STATE 12425),
    (sym_pattern_list, STATE 8578), (sym_yield, STATE 12425), (sym_attribute, STATE 6796),
    (sym_subscript, STATE 6797), (sym_call, STATE 6768), (sym_type, STATE 10130),
    (sym_called_type, STATE 9093), (sym_function_type, STATE 9093), (sym_splat_type, STATE 9093),
    (sym_generic_type, STATE 8287), (sym_union_type, STATE 9093),
    (sym_intersection_type, STATE 9093), (sym__intersection_operand, STATE 12294),
    (sym_constrained_type, STATE 9093), (sym_member_type, STATE 8165),
    (sym_mlir_type, STATE 7017), (sym_list, STATE 7017), (sym_set, STATE 7017),
    (sym_tuple, STATE 7017), (sym_dictionary, STATE 7017), (sym_struct_literal, STATE 7017),
    (sym_list_comprehension, STATE 7017), (sym_dictionary_comprehension, STATE 7017),
    (sym_set_comprehension, STATE 7017), (sym_generator_expression, STATE 7017),
    (sym_parenthesized_expression, STATE 7017), (sym_conditional_expression, STATE 7969),
    (sym_concatenated_string, STATE 7017), (sym_string, STATE 6729), (sym_await, STATE 7017),
    (sym_identifier, ACTIONS 327), (anon_sym_import, ACTIONS 11), (anon_sym_from, ACTIONS 13),
    (anon_sym_LPAREN, ACTIONS 329), (anon_sym_STAR, ACTIONS 331), (anon_sym_print, ACTIONS 333),
    (anon_sym_comptime, ACTIONS 335), (anon_sym_assert, ACTIONS 23),
    (anon_sym___comptime_assert, ACTIONS 25), (anon_sym_return, ACTIONS 27),
    (anon_sym_del, ACTIONS 29), (anon_sym_raise, ACTIONS 31), (anon_sym_pass, ACTIONS 33),
    (anon_sym_break, ACTIONS 35), (anon_sym_continue, ACTIONS 37), (anon_sym_match, ACTIONS 337),
    (anon_sym_async, ACTIONS 339), (anon_sym_def, ACTIONS 341), (anon_sym_LBRACK, ACTIONS 343),
    (anon_sym_LBRACE, ACTIONS 61), (anon_sym_STAR_STAR, ACTIONS 345),
    (anon_sym_global, ACTIONS 63), (anon_sym_nonlocal, ACTIONS 65), (anon_sym_exec, ACTIONS 347),
    (anon_sym_type, ACTIONS 349), (anon_sym_mut, ACTIONS 339), (anon_sym_out, ACTIONS 339),
    (anon_sym_DASH, ACTIONS 79), (anon_sym_PLUS, ACTIONS 79), (anon_sym_ref, ACTIONS 81),
    (anon_sym_var, ACTIONS 81), (anon_sym_not, ACTIONS 83), (anon_sym_TILDE, ACTIONS 79),
    (anon_sym_lambda, ACTIONS 85), (anon_sym_yield, ACTIONS 87), (sym_ellipsis, ACTIONS 89),
    (anon_sym___mlir_type, ACTIONS 91), (sym_integer, ACTIONS 93), (sym_float, ACTIONS 89),
    (anon_sym_await, ACTIONS 351), (sym_true, ACTIONS 93), (sym_false, ACTIONS 93),
    (sym_none, ACTIONS 93), (sym_comment, ACTIONS 3), (sym_line_continuation, ACTIONS 3),
    (sym__newline, ACTIONS 1441), (sym__indent, ACTIONS 1443), (sym_string_start, ACTIONS 97)]"

definition parse_table_1202 :: "(nat \<times> nat) list" where "parse_table_1202 = [
    (sym__simple_statements, STATE 6002), (sym_import_statement, STATE 11814),
    (sym_future_import_statement, STATE 11814), (sym_import_from_statement, STATE 11814),
    (sym_print_statement, STATE 11814), (sym_assert_statement, STATE 11814),
    (sym_comptime_assert_statement, STATE 11814), (sym_expression_statement, STATE 11814),
    (sym_tuple_expression, STATE 12425), (sym_named_expression, STATE 7969),
    (sym__named_expression_lhs, STATE 12752), (sym_return_statement, STATE 11814),
    (sym_delete_statement, STATE 11814), (sym_raise_statement, STATE 11814),
    (sym_pass_statement, STATE 11814), (sym_break_statement, STATE 11814),
    (sym_continue_statement, STATE 11814), (sym_global_statement, STATE 11814),
    (sym_nonlocal_statement, STATE 11814), (sym_exec_statement, STATE 11814),
    (sym_type_alias_statement, STATE 11814), (sym_parameterized_alias_statement, STATE 11814),
    (sym_pattern, STATE 8086), (sym_tuple_pattern, STATE 8101), (sym_list_pattern, STATE 8101),
    (sym_list_splat_pattern, STATE 6795), (sym_as_pattern, STATE 7969),
    (sym_expression, STATE 9623), (sym_primary_expression, STATE 7326),
    (sym_comptime_expression, STATE 7017), (sym_transfer_expression, STATE 7017),
    (sym_not_operator, STATE 7969), (sym_boolean_operator, STATE 7969),
    (sym_binary_operator, STATE 7017), (sym_unary_operator, STATE 7017),
    (sym_comparison_operator, STATE 7969), (sym_lambda, STATE 7969),
    (sym_assignment, STATE 12425), (sym_augmented_assignment, STATE 12425),
    (sym_pattern_list, STATE 8578), (sym_yield, STATE 12425), (sym_attribute, STATE 6796),
    (sym_subscript, STATE 6797), (sym_call, STATE 6768), (sym_type, STATE 10130),
    (sym_called_type, STATE 9093), (sym_function_type, STATE 9093), (sym_splat_type, STATE 9093),
    (sym_generic_type, STATE 8287), (sym_union_type, STATE 9093),
    (sym_intersection_type, STATE 9093), (sym__intersection_operand, STATE 12294),
    (sym_constrained_type, STATE 9093), (sym_member_type, STATE 8165),
    (sym_mlir_type, STATE 7017), (sym_list, STATE 7017), (sym_set, STATE 7017),
    (sym_tuple, STATE 7017), (sym_dictionary, STATE 7017), (sym_struct_literal, STATE 7017),
    (sym_list_comprehension, STATE 7017), (sym_dictionary_comprehension, STATE 7017),
    (sym_set_comprehension, STATE 7017), (sym_generator_expression, STATE 7017),
    (sym_parenthesized_expression, STATE 7017), (sym_conditional_expression, STATE 7969),
    (sym_concatenated_string, STATE 7017), (sym_string, STATE 6729), (sym_await, STATE 7017),
    (sym_identifier, ACTIONS 327), (anon_sym_import, ACTIONS 11), (anon_sym_from, ACTIONS 13),
    (anon_sym_LPAREN, ACTIONS 329), (anon_sym_STAR, ACTIONS 331), (anon_sym_print, ACTIONS 333),
    (anon_sym_comptime, ACTIONS 335), (anon_sym_assert, ACTIONS 23),
    (anon_sym___comptime_assert, ACTIONS 25), (anon_sym_return, ACTIONS 27),
    (anon_sym_del, ACTIONS 29), (anon_sym_raise, ACTIONS 31), (anon_sym_pass, ACTIONS 33),
    (anon_sym_break, ACTIONS 35), (anon_sym_continue, ACTIONS 37), (anon_sym_match, ACTIONS 337),
    (anon_sym_async, ACTIONS 339), (anon_sym_def, ACTIONS 341), (anon_sym_LBRACK, ACTIONS 343),
    (anon_sym_LBRACE, ACTIONS 61), (anon_sym_STAR_STAR, ACTIONS 345),
    (anon_sym_global, ACTIONS 63), (anon_sym_nonlocal, ACTIONS 65), (anon_sym_exec, ACTIONS 347),
    (anon_sym_type, ACTIONS 349), (anon_sym_mut, ACTIONS 339), (anon_sym_out, ACTIONS 339),
    (anon_sym_DASH, ACTIONS 79), (anon_sym_PLUS, ACTIONS 79), (anon_sym_ref, ACTIONS 81),
    (anon_sym_var, ACTIONS 81), (anon_sym_not, ACTIONS 83), (anon_sym_TILDE, ACTIONS 79),
    (anon_sym_lambda, ACTIONS 85), (anon_sym_yield, ACTIONS 87), (sym_ellipsis, ACTIONS 89),
    (anon_sym___mlir_type, ACTIONS 91), (sym_integer, ACTIONS 93), (sym_float, ACTIONS 89),
    (anon_sym_await, ACTIONS 351), (sym_true, ACTIONS 93), (sym_false, ACTIONS 93),
    (sym_none, ACTIONS 93), (sym_comment, ACTIONS 3), (sym_line_continuation, ACTIONS 3),
    (sym__newline, ACTIONS 1445), (sym__indent, ACTIONS 1447), (sym_string_start, ACTIONS 97)]"

definition parse_table_1203 :: "(nat \<times> nat) list" where "parse_table_1203 = [
    (sym__simple_statements, STATE 4612), (sym_import_statement, STATE 12239),
    (sym_future_import_statement, STATE 12239), (sym_import_from_statement, STATE 12239),
    (sym_print_statement, STATE 12239), (sym_assert_statement, STATE 12239),
    (sym_comptime_assert_statement, STATE 12239), (sym_expression_statement, STATE 12239),
    (sym_tuple_expression, STATE 12425), (sym_named_expression, STATE 7969),
    (sym__named_expression_lhs, STATE 12752), (sym_return_statement, STATE 12239),
    (sym_delete_statement, STATE 12239), (sym_raise_statement, STATE 12239),
    (sym_pass_statement, STATE 12239), (sym_break_statement, STATE 12239),
    (sym_continue_statement, STATE 12239), (sym_global_statement, STATE 12239),
    (sym_nonlocal_statement, STATE 12239), (sym_exec_statement, STATE 12239),
    (sym_type_alias_statement, STATE 12239), (sym_parameterized_alias_statement, STATE 12239),
    (sym_pattern, STATE 8086), (sym_tuple_pattern, STATE 8101), (sym_list_pattern, STATE 8101),
    (sym_list_splat_pattern, STATE 6795), (sym_as_pattern, STATE 7969),
    (sym_expression, STATE 9623), (sym_primary_expression, STATE 7326),
    (sym_comptime_expression, STATE 7017), (sym_transfer_expression, STATE 7017),
    (sym_not_operator, STATE 7969), (sym_boolean_operator, STATE 7969),
    (sym_binary_operator, STATE 7017), (sym_unary_operator, STATE 7017),
    (sym_comparison_operator, STATE 7969), (sym_lambda, STATE 7969),
    (sym_assignment, STATE 12425), (sym_augmented_assignment, STATE 12425),
    (sym_pattern_list, STATE 8578), (sym_yield, STATE 12425), (sym_attribute, STATE 6796),
    (sym_subscript, STATE 6797), (sym_call, STATE 6768), (sym_type, STATE 10130),
    (sym_called_type, STATE 9093), (sym_function_type, STATE 9093), (sym_splat_type, STATE 9093),
    (sym_generic_type, STATE 8287), (sym_union_type, STATE 9093),
    (sym_intersection_type, STATE 9093), (sym__intersection_operand, STATE 12294),
    (sym_constrained_type, STATE 9093), (sym_member_type, STATE 8165),
    (sym_mlir_type, STATE 7017), (sym_list, STATE 7017), (sym_set, STATE 7017),
    (sym_tuple, STATE 7017), (sym_dictionary, STATE 7017), (sym_struct_literal, STATE 7017),
    (sym_list_comprehension, STATE 7017), (sym_dictionary_comprehension, STATE 7017),
    (sym_set_comprehension, STATE 7017), (sym_generator_expression, STATE 7017),
    (sym_parenthesized_expression, STATE 7017), (sym_conditional_expression, STATE 7969),
    (sym_concatenated_string, STATE 7017), (sym_string, STATE 6729), (sym_await, STATE 7017),
    (sym_identifier, ACTIONS 327), (anon_sym_import, ACTIONS 11), (anon_sym_from, ACTIONS 13),
    (anon_sym_LPAREN, ACTIONS 329), (anon_sym_STAR, ACTIONS 331), (anon_sym_print, ACTIONS 333),
    (anon_sym_comptime, ACTIONS 335), (anon_sym_assert, ACTIONS 23),
    (anon_sym___comptime_assert, ACTIONS 25), (anon_sym_return, ACTIONS 27),
    (anon_sym_del, ACTIONS 29), (anon_sym_raise, ACTIONS 31), (anon_sym_pass, ACTIONS 33),
    (anon_sym_break, ACTIONS 35), (anon_sym_continue, ACTIONS 37), (anon_sym_match, ACTIONS 337),
    (anon_sym_async, ACTIONS 339), (anon_sym_def, ACTIONS 341), (anon_sym_LBRACK, ACTIONS 343),
    (anon_sym_LBRACE, ACTIONS 61), (anon_sym_STAR_STAR, ACTIONS 345),
    (anon_sym_global, ACTIONS 63), (anon_sym_nonlocal, ACTIONS 65), (anon_sym_exec, ACTIONS 347),
    (anon_sym_type, ACTIONS 349), (anon_sym_mut, ACTIONS 339), (anon_sym_out, ACTIONS 339),
    (anon_sym_DASH, ACTIONS 79), (anon_sym_PLUS, ACTIONS 79), (anon_sym_ref, ACTIONS 81),
    (anon_sym_var, ACTIONS 81), (anon_sym_not, ACTIONS 83), (anon_sym_TILDE, ACTIONS 79),
    (anon_sym_lambda, ACTIONS 85), (anon_sym_yield, ACTIONS 87), (sym_ellipsis, ACTIONS 89),
    (anon_sym___mlir_type, ACTIONS 91), (sym_integer, ACTIONS 93), (sym_float, ACTIONS 89),
    (anon_sym_await, ACTIONS 351), (sym_true, ACTIONS 93), (sym_false, ACTIONS 93),
    (sym_none, ACTIONS 93), (sym_comment, ACTIONS 3), (sym_line_continuation, ACTIONS 3),
    (sym__newline, ACTIONS 1449), (sym__indent, ACTIONS 1451), (sym_string_start, ACTIONS 97)]"

definition parse_table_1204 :: "(nat \<times> nat) list" where "parse_table_1204 = [
    (sym__simple_statements, STATE 6422), (sym_import_statement, STATE 12239),
    (sym_future_import_statement, STATE 12239), (sym_import_from_statement, STATE 12239),
    (sym_print_statement, STATE 12239), (sym_assert_statement, STATE 12239),
    (sym_comptime_assert_statement, STATE 12239), (sym_expression_statement, STATE 12239),
    (sym_tuple_expression, STATE 12425), (sym_named_expression, STATE 7969),
    (sym__named_expression_lhs, STATE 12752), (sym_return_statement, STATE 12239),
    (sym_delete_statement, STATE 12239), (sym_raise_statement, STATE 12239),
    (sym_pass_statement, STATE 12239), (sym_break_statement, STATE 12239),
    (sym_continue_statement, STATE 12239), (sym_global_statement, STATE 12239),
    (sym_nonlocal_statement, STATE 12239), (sym_exec_statement, STATE 12239),
    (sym_type_alias_statement, STATE 12239), (sym_parameterized_alias_statement, STATE 12239),
    (sym_pattern, STATE 8086), (sym_tuple_pattern, STATE 8101), (sym_list_pattern, STATE 8101),
    (sym_list_splat_pattern, STATE 6795), (sym_as_pattern, STATE 7969),
    (sym_expression, STATE 9623), (sym_primary_expression, STATE 7326),
    (sym_comptime_expression, STATE 7017), (sym_transfer_expression, STATE 7017),
    (sym_not_operator, STATE 7969), (sym_boolean_operator, STATE 7969),
    (sym_binary_operator, STATE 7017), (sym_unary_operator, STATE 7017),
    (sym_comparison_operator, STATE 7969), (sym_lambda, STATE 7969),
    (sym_assignment, STATE 12425), (sym_augmented_assignment, STATE 12425),
    (sym_pattern_list, STATE 8578), (sym_yield, STATE 12425), (sym_attribute, STATE 6796),
    (sym_subscript, STATE 6797), (sym_call, STATE 6768), (sym_type, STATE 10130),
    (sym_called_type, STATE 9093), (sym_function_type, STATE 9093), (sym_splat_type, STATE 9093),
    (sym_generic_type, STATE 8287), (sym_union_type, STATE 9093),
    (sym_intersection_type, STATE 9093), (sym__intersection_operand, STATE 12294),
    (sym_constrained_type, STATE 9093), (sym_member_type, STATE 8165),
    (sym_mlir_type, STATE 7017), (sym_list, STATE 7017), (sym_set, STATE 7017),
    (sym_tuple, STATE 7017), (sym_dictionary, STATE 7017), (sym_struct_literal, STATE 7017),
    (sym_list_comprehension, STATE 7017), (sym_dictionary_comprehension, STATE 7017),
    (sym_set_comprehension, STATE 7017), (sym_generator_expression, STATE 7017),
    (sym_parenthesized_expression, STATE 7017), (sym_conditional_expression, STATE 7969),
    (sym_concatenated_string, STATE 7017), (sym_string, STATE 6729), (sym_await, STATE 7017),
    (sym_identifier, ACTIONS 327), (anon_sym_import, ACTIONS 11), (anon_sym_from, ACTIONS 13),
    (anon_sym_LPAREN, ACTIONS 329), (anon_sym_STAR, ACTIONS 331), (anon_sym_print, ACTIONS 333),
    (anon_sym_comptime, ACTIONS 335), (anon_sym_assert, ACTIONS 23),
    (anon_sym___comptime_assert, ACTIONS 25), (anon_sym_return, ACTIONS 27),
    (anon_sym_del, ACTIONS 29), (anon_sym_raise, ACTIONS 31), (anon_sym_pass, ACTIONS 33),
    (anon_sym_break, ACTIONS 35), (anon_sym_continue, ACTIONS 37), (anon_sym_match, ACTIONS 337),
    (anon_sym_async, ACTIONS 339), (anon_sym_def, ACTIONS 341), (anon_sym_LBRACK, ACTIONS 343),
    (anon_sym_LBRACE, ACTIONS 61), (anon_sym_STAR_STAR, ACTIONS 345),
    (anon_sym_global, ACTIONS 63), (anon_sym_nonlocal, ACTIONS 65), (anon_sym_exec, ACTIONS 347),
    (anon_sym_type, ACTIONS 349), (anon_sym_mut, ACTIONS 339), (anon_sym_out, ACTIONS 339),
    (anon_sym_DASH, ACTIONS 79), (anon_sym_PLUS, ACTIONS 79), (anon_sym_ref, ACTIONS 81),
    (anon_sym_var, ACTIONS 81), (anon_sym_not, ACTIONS 83), (anon_sym_TILDE, ACTIONS 79),
    (anon_sym_lambda, ACTIONS 85), (anon_sym_yield, ACTIONS 87), (sym_ellipsis, ACTIONS 89),
    (anon_sym___mlir_type, ACTIONS 91), (sym_integer, ACTIONS 93), (sym_float, ACTIONS 89),
    (anon_sym_await, ACTIONS 351), (sym_true, ACTIONS 93), (sym_false, ACTIONS 93),
    (sym_none, ACTIONS 93), (sym_comment, ACTIONS 3), (sym_line_continuation, ACTIONS 3),
    (sym__newline, ACTIONS 1453), (sym__indent, ACTIONS 1455), (sym_string_start, ACTIONS 97)]"

definition parse_table_1205 :: "(nat \<times> nat) list" where "parse_table_1205 = [
    (sym__simple_statements, STATE 6013), (sym_import_statement, STATE 11814),
    (sym_future_import_statement, STATE 11814), (sym_import_from_statement, STATE 11814),
    (sym_print_statement, STATE 11814), (sym_assert_statement, STATE 11814),
    (sym_comptime_assert_statement, STATE 11814), (sym_expression_statement, STATE 11814),
    (sym_tuple_expression, STATE 12425), (sym_named_expression, STATE 7969),
    (sym__named_expression_lhs, STATE 12752), (sym_return_statement, STATE 11814),
    (sym_delete_statement, STATE 11814), (sym_raise_statement, STATE 11814),
    (sym_pass_statement, STATE 11814), (sym_break_statement, STATE 11814),
    (sym_continue_statement, STATE 11814), (sym_global_statement, STATE 11814),
    (sym_nonlocal_statement, STATE 11814), (sym_exec_statement, STATE 11814),
    (sym_type_alias_statement, STATE 11814), (sym_parameterized_alias_statement, STATE 11814),
    (sym_pattern, STATE 8086), (sym_tuple_pattern, STATE 8101), (sym_list_pattern, STATE 8101),
    (sym_list_splat_pattern, STATE 6795), (sym_as_pattern, STATE 7969),
    (sym_expression, STATE 9623), (sym_primary_expression, STATE 7326),
    (sym_comptime_expression, STATE 7017), (sym_transfer_expression, STATE 7017),
    (sym_not_operator, STATE 7969), (sym_boolean_operator, STATE 7969),
    (sym_binary_operator, STATE 7017), (sym_unary_operator, STATE 7017),
    (sym_comparison_operator, STATE 7969), (sym_lambda, STATE 7969),
    (sym_assignment, STATE 12425), (sym_augmented_assignment, STATE 12425),
    (sym_pattern_list, STATE 8578), (sym_yield, STATE 12425), (sym_attribute, STATE 6796),
    (sym_subscript, STATE 6797), (sym_call, STATE 6768), (sym_type, STATE 10130),
    (sym_called_type, STATE 9093), (sym_function_type, STATE 9093), (sym_splat_type, STATE 9093),
    (sym_generic_type, STATE 8287), (sym_union_type, STATE 9093),
    (sym_intersection_type, STATE 9093), (sym__intersection_operand, STATE 12294),
    (sym_constrained_type, STATE 9093), (sym_member_type, STATE 8165),
    (sym_mlir_type, STATE 7017), (sym_list, STATE 7017), (sym_set, STATE 7017),
    (sym_tuple, STATE 7017), (sym_dictionary, STATE 7017), (sym_struct_literal, STATE 7017),
    (sym_list_comprehension, STATE 7017), (sym_dictionary_comprehension, STATE 7017),
    (sym_set_comprehension, STATE 7017), (sym_generator_expression, STATE 7017),
    (sym_parenthesized_expression, STATE 7017), (sym_conditional_expression, STATE 7969),
    (sym_concatenated_string, STATE 7017), (sym_string, STATE 6729), (sym_await, STATE 7017),
    (sym_identifier, ACTIONS 327), (anon_sym_import, ACTIONS 11), (anon_sym_from, ACTIONS 13),
    (anon_sym_LPAREN, ACTIONS 329), (anon_sym_STAR, ACTIONS 331), (anon_sym_print, ACTIONS 333),
    (anon_sym_comptime, ACTIONS 335), (anon_sym_assert, ACTIONS 23),
    (anon_sym___comptime_assert, ACTIONS 25), (anon_sym_return, ACTIONS 27),
    (anon_sym_del, ACTIONS 29), (anon_sym_raise, ACTIONS 31), (anon_sym_pass, ACTIONS 33),
    (anon_sym_break, ACTIONS 35), (anon_sym_continue, ACTIONS 37), (anon_sym_match, ACTIONS 337),
    (anon_sym_async, ACTIONS 339), (anon_sym_def, ACTIONS 341), (anon_sym_LBRACK, ACTIONS 343),
    (anon_sym_LBRACE, ACTIONS 61), (anon_sym_STAR_STAR, ACTIONS 345),
    (anon_sym_global, ACTIONS 63), (anon_sym_nonlocal, ACTIONS 65), (anon_sym_exec, ACTIONS 347),
    (anon_sym_type, ACTIONS 349), (anon_sym_mut, ACTIONS 339), (anon_sym_out, ACTIONS 339),
    (anon_sym_DASH, ACTIONS 79), (anon_sym_PLUS, ACTIONS 79), (anon_sym_ref, ACTIONS 81),
    (anon_sym_var, ACTIONS 81), (anon_sym_not, ACTIONS 83), (anon_sym_TILDE, ACTIONS 79),
    (anon_sym_lambda, ACTIONS 85), (anon_sym_yield, ACTIONS 87), (sym_ellipsis, ACTIONS 89),
    (anon_sym___mlir_type, ACTIONS 91), (sym_integer, ACTIONS 93), (sym_float, ACTIONS 89),
    (anon_sym_await, ACTIONS 351), (sym_true, ACTIONS 93), (sym_false, ACTIONS 93),
    (sym_none, ACTIONS 93), (sym_comment, ACTIONS 3), (sym_line_continuation, ACTIONS 3),
    (sym__newline, ACTIONS 1457), (sym__indent, ACTIONS 1459), (sym_string_start, ACTIONS 97)]"

definition parse_table_1206 :: "(nat \<times> nat) list" where "parse_table_1206 = [
    (sym__simple_statements, STATE 4816), (sym_import_statement, STATE 11814),
    (sym_future_import_statement, STATE 11814), (sym_import_from_statement, STATE 11814),
    (sym_print_statement, STATE 11814), (sym_assert_statement, STATE 11814),
    (sym_comptime_assert_statement, STATE 11814), (sym_expression_statement, STATE 11814),
    (sym_tuple_expression, STATE 12425), (sym_named_expression, STATE 7969),
    (sym__named_expression_lhs, STATE 12752), (sym_return_statement, STATE 11814),
    (sym_delete_statement, STATE 11814), (sym_raise_statement, STATE 11814),
    (sym_pass_statement, STATE 11814), (sym_break_statement, STATE 11814),
    (sym_continue_statement, STATE 11814), (sym_global_statement, STATE 11814),
    (sym_nonlocal_statement, STATE 11814), (sym_exec_statement, STATE 11814),
    (sym_type_alias_statement, STATE 11814), (sym_parameterized_alias_statement, STATE 11814),
    (sym_pattern, STATE 8086), (sym_tuple_pattern, STATE 8101), (sym_list_pattern, STATE 8101),
    (sym_list_splat_pattern, STATE 6795), (sym_as_pattern, STATE 7969),
    (sym_expression, STATE 9623), (sym_primary_expression, STATE 7326),
    (sym_comptime_expression, STATE 7017), (sym_transfer_expression, STATE 7017),
    (sym_not_operator, STATE 7969), (sym_boolean_operator, STATE 7969),
    (sym_binary_operator, STATE 7017), (sym_unary_operator, STATE 7017),
    (sym_comparison_operator, STATE 7969), (sym_lambda, STATE 7969),
    (sym_assignment, STATE 12425), (sym_augmented_assignment, STATE 12425),
    (sym_pattern_list, STATE 8578), (sym_yield, STATE 12425), (sym_attribute, STATE 6796),
    (sym_subscript, STATE 6797), (sym_call, STATE 6768), (sym_type, STATE 10130),
    (sym_called_type, STATE 9093), (sym_function_type, STATE 9093), (sym_splat_type, STATE 9093),
    (sym_generic_type, STATE 8287), (sym_union_type, STATE 9093),
    (sym_intersection_type, STATE 9093), (sym__intersection_operand, STATE 12294),
    (sym_constrained_type, STATE 9093), (sym_member_type, STATE 8165),
    (sym_mlir_type, STATE 7017), (sym_list, STATE 7017), (sym_set, STATE 7017),
    (sym_tuple, STATE 7017), (sym_dictionary, STATE 7017), (sym_struct_literal, STATE 7017),
    (sym_list_comprehension, STATE 7017), (sym_dictionary_comprehension, STATE 7017),
    (sym_set_comprehension, STATE 7017), (sym_generator_expression, STATE 7017),
    (sym_parenthesized_expression, STATE 7017), (sym_conditional_expression, STATE 7969),
    (sym_concatenated_string, STATE 7017), (sym_string, STATE 6729), (sym_await, STATE 7017),
    (sym_identifier, ACTIONS 327), (anon_sym_import, ACTIONS 11), (anon_sym_from, ACTIONS 13),
    (anon_sym_LPAREN, ACTIONS 329), (anon_sym_STAR, ACTIONS 331), (anon_sym_print, ACTIONS 333),
    (anon_sym_comptime, ACTIONS 335), (anon_sym_assert, ACTIONS 23),
    (anon_sym___comptime_assert, ACTIONS 25), (anon_sym_return, ACTIONS 27),
    (anon_sym_del, ACTIONS 29), (anon_sym_raise, ACTIONS 31), (anon_sym_pass, ACTIONS 33),
    (anon_sym_break, ACTIONS 35), (anon_sym_continue, ACTIONS 37), (anon_sym_match, ACTIONS 337),
    (anon_sym_async, ACTIONS 339), (anon_sym_def, ACTIONS 341), (anon_sym_LBRACK, ACTIONS 343),
    (anon_sym_LBRACE, ACTIONS 61), (anon_sym_STAR_STAR, ACTIONS 345),
    (anon_sym_global, ACTIONS 63), (anon_sym_nonlocal, ACTIONS 65), (anon_sym_exec, ACTIONS 347),
    (anon_sym_type, ACTIONS 349), (anon_sym_mut, ACTIONS 339), (anon_sym_out, ACTIONS 339),
    (anon_sym_DASH, ACTIONS 79), (anon_sym_PLUS, ACTIONS 79), (anon_sym_ref, ACTIONS 81),
    (anon_sym_var, ACTIONS 81), (anon_sym_not, ACTIONS 83), (anon_sym_TILDE, ACTIONS 79),
    (anon_sym_lambda, ACTIONS 85), (anon_sym_yield, ACTIONS 87), (sym_ellipsis, ACTIONS 89),
    (anon_sym___mlir_type, ACTIONS 91), (sym_integer, ACTIONS 93), (sym_float, ACTIONS 89),
    (anon_sym_await, ACTIONS 351), (sym_true, ACTIONS 93), (sym_false, ACTIONS 93),
    (sym_none, ACTIONS 93), (sym_comment, ACTIONS 3), (sym_line_continuation, ACTIONS 3),
    (sym__newline, ACTIONS 1461), (sym__indent, ACTIONS 1463), (sym_string_start, ACTIONS 97)]"

definition parse_table_1207 :: "(nat \<times> nat) list" where "parse_table_1207 = [
    (sym__simple_statements, STATE 4818), (sym_import_statement, STATE 11814),
    (sym_future_import_statement, STATE 11814), (sym_import_from_statement, STATE 11814),
    (sym_print_statement, STATE 11814), (sym_assert_statement, STATE 11814),
    (sym_comptime_assert_statement, STATE 11814), (sym_expression_statement, STATE 11814),
    (sym_tuple_expression, STATE 12425), (sym_named_expression, STATE 7969),
    (sym__named_expression_lhs, STATE 12752), (sym_return_statement, STATE 11814),
    (sym_delete_statement, STATE 11814), (sym_raise_statement, STATE 11814),
    (sym_pass_statement, STATE 11814), (sym_break_statement, STATE 11814),
    (sym_continue_statement, STATE 11814), (sym_global_statement, STATE 11814),
    (sym_nonlocal_statement, STATE 11814), (sym_exec_statement, STATE 11814),
    (sym_type_alias_statement, STATE 11814), (sym_parameterized_alias_statement, STATE 11814),
    (sym_pattern, STATE 8086), (sym_tuple_pattern, STATE 8101), (sym_list_pattern, STATE 8101),
    (sym_list_splat_pattern, STATE 6795), (sym_as_pattern, STATE 7969),
    (sym_expression, STATE 9623), (sym_primary_expression, STATE 7326),
    (sym_comptime_expression, STATE 7017), (sym_transfer_expression, STATE 7017),
    (sym_not_operator, STATE 7969), (sym_boolean_operator, STATE 7969),
    (sym_binary_operator, STATE 7017), (sym_unary_operator, STATE 7017),
    (sym_comparison_operator, STATE 7969), (sym_lambda, STATE 7969),
    (sym_assignment, STATE 12425), (sym_augmented_assignment, STATE 12425),
    (sym_pattern_list, STATE 8578), (sym_yield, STATE 12425), (sym_attribute, STATE 6796),
    (sym_subscript, STATE 6797), (sym_call, STATE 6768), (sym_type, STATE 10130),
    (sym_called_type, STATE 9093), (sym_function_type, STATE 9093), (sym_splat_type, STATE 9093),
    (sym_generic_type, STATE 8287), (sym_union_type, STATE 9093),
    (sym_intersection_type, STATE 9093), (sym__intersection_operand, STATE 12294),
    (sym_constrained_type, STATE 9093), (sym_member_type, STATE 8165),
    (sym_mlir_type, STATE 7017), (sym_list, STATE 7017), (sym_set, STATE 7017),
    (sym_tuple, STATE 7017), (sym_dictionary, STATE 7017), (sym_struct_literal, STATE 7017),
    (sym_list_comprehension, STATE 7017), (sym_dictionary_comprehension, STATE 7017),
    (sym_set_comprehension, STATE 7017), (sym_generator_expression, STATE 7017),
    (sym_parenthesized_expression, STATE 7017), (sym_conditional_expression, STATE 7969),
    (sym_concatenated_string, STATE 7017), (sym_string, STATE 6729), (sym_await, STATE 7017),
    (sym_identifier, ACTIONS 327), (anon_sym_import, ACTIONS 11), (anon_sym_from, ACTIONS 13),
    (anon_sym_LPAREN, ACTIONS 329), (anon_sym_STAR, ACTIONS 331), (anon_sym_print, ACTIONS 333),
    (anon_sym_comptime, ACTIONS 335), (anon_sym_assert, ACTIONS 23),
    (anon_sym___comptime_assert, ACTIONS 25), (anon_sym_return, ACTIONS 27),
    (anon_sym_del, ACTIONS 29), (anon_sym_raise, ACTIONS 31), (anon_sym_pass, ACTIONS 33),
    (anon_sym_break, ACTIONS 35), (anon_sym_continue, ACTIONS 37), (anon_sym_match, ACTIONS 337),
    (anon_sym_async, ACTIONS 339), (anon_sym_def, ACTIONS 341), (anon_sym_LBRACK, ACTIONS 343),
    (anon_sym_LBRACE, ACTIONS 61), (anon_sym_STAR_STAR, ACTIONS 345),
    (anon_sym_global, ACTIONS 63), (anon_sym_nonlocal, ACTIONS 65), (anon_sym_exec, ACTIONS 347),
    (anon_sym_type, ACTIONS 349), (anon_sym_mut, ACTIONS 339), (anon_sym_out, ACTIONS 339),
    (anon_sym_DASH, ACTIONS 79), (anon_sym_PLUS, ACTIONS 79), (anon_sym_ref, ACTIONS 81),
    (anon_sym_var, ACTIONS 81), (anon_sym_not, ACTIONS 83), (anon_sym_TILDE, ACTIONS 79),
    (anon_sym_lambda, ACTIONS 85), (anon_sym_yield, ACTIONS 87), (sym_ellipsis, ACTIONS 89),
    (anon_sym___mlir_type, ACTIONS 91), (sym_integer, ACTIONS 93), (sym_float, ACTIONS 89),
    (anon_sym_await, ACTIONS 351), (sym_true, ACTIONS 93), (sym_false, ACTIONS 93),
    (sym_none, ACTIONS 93), (sym_comment, ACTIONS 3), (sym_line_continuation, ACTIONS 3),
    (sym__newline, ACTIONS 1465), (sym__indent, ACTIONS 1467), (sym_string_start, ACTIONS 97)]"

definition parse_table_1208 :: "(nat \<times> nat) list" where "parse_table_1208 = [
    (sym__simple_statements, STATE 5534), (sym_import_statement, STATE 12239),
    (sym_future_import_statement, STATE 12239), (sym_import_from_statement, STATE 12239),
    (sym_print_statement, STATE 12239), (sym_assert_statement, STATE 12239),
    (sym_comptime_assert_statement, STATE 12239), (sym_expression_statement, STATE 12239),
    (sym_tuple_expression, STATE 12425), (sym_named_expression, STATE 7969),
    (sym__named_expression_lhs, STATE 12752), (sym_return_statement, STATE 12239),
    (sym_delete_statement, STATE 12239), (sym_raise_statement, STATE 12239),
    (sym_pass_statement, STATE 12239), (sym_break_statement, STATE 12239),
    (sym_continue_statement, STATE 12239), (sym_global_statement, STATE 12239),
    (sym_nonlocal_statement, STATE 12239), (sym_exec_statement, STATE 12239),
    (sym_type_alias_statement, STATE 12239), (sym_parameterized_alias_statement, STATE 12239),
    (sym_pattern, STATE 8086), (sym_tuple_pattern, STATE 8101), (sym_list_pattern, STATE 8101),
    (sym_list_splat_pattern, STATE 6795), (sym_as_pattern, STATE 7969),
    (sym_expression, STATE 9623), (sym_primary_expression, STATE 7326),
    (sym_comptime_expression, STATE 7017), (sym_transfer_expression, STATE 7017),
    (sym_not_operator, STATE 7969), (sym_boolean_operator, STATE 7969),
    (sym_binary_operator, STATE 7017), (sym_unary_operator, STATE 7017),
    (sym_comparison_operator, STATE 7969), (sym_lambda, STATE 7969),
    (sym_assignment, STATE 12425), (sym_augmented_assignment, STATE 12425),
    (sym_pattern_list, STATE 8578), (sym_yield, STATE 12425), (sym_attribute, STATE 6796),
    (sym_subscript, STATE 6797), (sym_call, STATE 6768), (sym_type, STATE 10130),
    (sym_called_type, STATE 9093), (sym_function_type, STATE 9093), (sym_splat_type, STATE 9093),
    (sym_generic_type, STATE 8287), (sym_union_type, STATE 9093),
    (sym_intersection_type, STATE 9093), (sym__intersection_operand, STATE 12294),
    (sym_constrained_type, STATE 9093), (sym_member_type, STATE 8165),
    (sym_mlir_type, STATE 7017), (sym_list, STATE 7017), (sym_set, STATE 7017),
    (sym_tuple, STATE 7017), (sym_dictionary, STATE 7017), (sym_struct_literal, STATE 7017),
    (sym_list_comprehension, STATE 7017), (sym_dictionary_comprehension, STATE 7017),
    (sym_set_comprehension, STATE 7017), (sym_generator_expression, STATE 7017),
    (sym_parenthesized_expression, STATE 7017), (sym_conditional_expression, STATE 7969),
    (sym_concatenated_string, STATE 7017), (sym_string, STATE 6729), (sym_await, STATE 7017),
    (sym_identifier, ACTIONS 327), (anon_sym_import, ACTIONS 11), (anon_sym_from, ACTIONS 13),
    (anon_sym_LPAREN, ACTIONS 329), (anon_sym_STAR, ACTIONS 331), (anon_sym_print, ACTIONS 333),
    (anon_sym_comptime, ACTIONS 335), (anon_sym_assert, ACTIONS 23),
    (anon_sym___comptime_assert, ACTIONS 25), (anon_sym_return, ACTIONS 27),
    (anon_sym_del, ACTIONS 29), (anon_sym_raise, ACTIONS 31), (anon_sym_pass, ACTIONS 33),
    (anon_sym_break, ACTIONS 35), (anon_sym_continue, ACTIONS 37), (anon_sym_match, ACTIONS 337),
    (anon_sym_async, ACTIONS 339), (anon_sym_def, ACTIONS 341), (anon_sym_LBRACK, ACTIONS 343),
    (anon_sym_LBRACE, ACTIONS 61), (anon_sym_STAR_STAR, ACTIONS 345),
    (anon_sym_global, ACTIONS 63), (anon_sym_nonlocal, ACTIONS 65), (anon_sym_exec, ACTIONS 347),
    (anon_sym_type, ACTIONS 349), (anon_sym_mut, ACTIONS 339), (anon_sym_out, ACTIONS 339),
    (anon_sym_DASH, ACTIONS 79), (anon_sym_PLUS, ACTIONS 79), (anon_sym_ref, ACTIONS 81),
    (anon_sym_var, ACTIONS 81), (anon_sym_not, ACTIONS 83), (anon_sym_TILDE, ACTIONS 79),
    (anon_sym_lambda, ACTIONS 85), (anon_sym_yield, ACTIONS 87), (sym_ellipsis, ACTIONS 89),
    (anon_sym___mlir_type, ACTIONS 91), (sym_integer, ACTIONS 93), (sym_float, ACTIONS 89),
    (anon_sym_await, ACTIONS 351), (sym_true, ACTIONS 93), (sym_false, ACTIONS 93),
    (sym_none, ACTIONS 93), (sym_comment, ACTIONS 3), (sym_line_continuation, ACTIONS 3),
    (sym__newline, ACTIONS 1469), (sym__indent, ACTIONS 1471), (sym_string_start, ACTIONS 97)]"

definition parse_table_1209 :: "(nat \<times> nat) list" where "parse_table_1209 = [
    (sym__simple_statements, STATE 6027), (sym_import_statement, STATE 11814),
    (sym_future_import_statement, STATE 11814), (sym_import_from_statement, STATE 11814),
    (sym_print_statement, STATE 11814), (sym_assert_statement, STATE 11814),
    (sym_comptime_assert_statement, STATE 11814), (sym_expression_statement, STATE 11814),
    (sym_tuple_expression, STATE 12425), (sym_named_expression, STATE 7969),
    (sym__named_expression_lhs, STATE 12752), (sym_return_statement, STATE 11814),
    (sym_delete_statement, STATE 11814), (sym_raise_statement, STATE 11814),
    (sym_pass_statement, STATE 11814), (sym_break_statement, STATE 11814),
    (sym_continue_statement, STATE 11814), (sym_global_statement, STATE 11814),
    (sym_nonlocal_statement, STATE 11814), (sym_exec_statement, STATE 11814),
    (sym_type_alias_statement, STATE 11814), (sym_parameterized_alias_statement, STATE 11814),
    (sym_pattern, STATE 8086), (sym_tuple_pattern, STATE 8101), (sym_list_pattern, STATE 8101),
    (sym_list_splat_pattern, STATE 6795), (sym_as_pattern, STATE 7969),
    (sym_expression, STATE 9623), (sym_primary_expression, STATE 7326),
    (sym_comptime_expression, STATE 7017), (sym_transfer_expression, STATE 7017),
    (sym_not_operator, STATE 7969), (sym_boolean_operator, STATE 7969),
    (sym_binary_operator, STATE 7017), (sym_unary_operator, STATE 7017),
    (sym_comparison_operator, STATE 7969), (sym_lambda, STATE 7969),
    (sym_assignment, STATE 12425), (sym_augmented_assignment, STATE 12425),
    (sym_pattern_list, STATE 8578), (sym_yield, STATE 12425), (sym_attribute, STATE 6796),
    (sym_subscript, STATE 6797), (sym_call, STATE 6768), (sym_type, STATE 10130),
    (sym_called_type, STATE 9093), (sym_function_type, STATE 9093), (sym_splat_type, STATE 9093),
    (sym_generic_type, STATE 8287), (sym_union_type, STATE 9093),
    (sym_intersection_type, STATE 9093), (sym__intersection_operand, STATE 12294),
    (sym_constrained_type, STATE 9093), (sym_member_type, STATE 8165),
    (sym_mlir_type, STATE 7017), (sym_list, STATE 7017), (sym_set, STATE 7017),
    (sym_tuple, STATE 7017), (sym_dictionary, STATE 7017), (sym_struct_literal, STATE 7017),
    (sym_list_comprehension, STATE 7017), (sym_dictionary_comprehension, STATE 7017),
    (sym_set_comprehension, STATE 7017), (sym_generator_expression, STATE 7017),
    (sym_parenthesized_expression, STATE 7017), (sym_conditional_expression, STATE 7969),
    (sym_concatenated_string, STATE 7017), (sym_string, STATE 6729), (sym_await, STATE 7017),
    (sym_identifier, ACTIONS 327), (anon_sym_import, ACTIONS 11), (anon_sym_from, ACTIONS 13),
    (anon_sym_LPAREN, ACTIONS 329), (anon_sym_STAR, ACTIONS 331), (anon_sym_print, ACTIONS 333),
    (anon_sym_comptime, ACTIONS 335), (anon_sym_assert, ACTIONS 23),
    (anon_sym___comptime_assert, ACTIONS 25), (anon_sym_return, ACTIONS 27),
    (anon_sym_del, ACTIONS 29), (anon_sym_raise, ACTIONS 31), (anon_sym_pass, ACTIONS 33),
    (anon_sym_break, ACTIONS 35), (anon_sym_continue, ACTIONS 37), (anon_sym_match, ACTIONS 337),
    (anon_sym_async, ACTIONS 339), (anon_sym_def, ACTIONS 341), (anon_sym_LBRACK, ACTIONS 343),
    (anon_sym_LBRACE, ACTIONS 61), (anon_sym_STAR_STAR, ACTIONS 345),
    (anon_sym_global, ACTIONS 63), (anon_sym_nonlocal, ACTIONS 65), (anon_sym_exec, ACTIONS 347),
    (anon_sym_type, ACTIONS 349), (anon_sym_mut, ACTIONS 339), (anon_sym_out, ACTIONS 339),
    (anon_sym_DASH, ACTIONS 79), (anon_sym_PLUS, ACTIONS 79), (anon_sym_ref, ACTIONS 81),
    (anon_sym_var, ACTIONS 81), (anon_sym_not, ACTIONS 83), (anon_sym_TILDE, ACTIONS 79),
    (anon_sym_lambda, ACTIONS 85), (anon_sym_yield, ACTIONS 87), (sym_ellipsis, ACTIONS 89),
    (anon_sym___mlir_type, ACTIONS 91), (sym_integer, ACTIONS 93), (sym_float, ACTIONS 89),
    (anon_sym_await, ACTIONS 351), (sym_true, ACTIONS 93), (sym_false, ACTIONS 93),
    (sym_none, ACTIONS 93), (sym_comment, ACTIONS 3), (sym_line_continuation, ACTIONS 3),
    (sym__newline, ACTIONS 1473), (sym__indent, ACTIONS 1475), (sym_string_start, ACTIONS 97)]"

definition parse_table_1210 :: "(nat \<times> nat) list" where "parse_table_1210 = [
    (sym__simple_statements, STATE 4828), (sym_import_statement, STATE 11814),
    (sym_future_import_statement, STATE 11814), (sym_import_from_statement, STATE 11814),
    (sym_print_statement, STATE 11814), (sym_assert_statement, STATE 11814),
    (sym_comptime_assert_statement, STATE 11814), (sym_expression_statement, STATE 11814),
    (sym_tuple_expression, STATE 12425), (sym_named_expression, STATE 7969),
    (sym__named_expression_lhs, STATE 12752), (sym_return_statement, STATE 11814),
    (sym_delete_statement, STATE 11814), (sym_raise_statement, STATE 11814),
    (sym_pass_statement, STATE 11814), (sym_break_statement, STATE 11814),
    (sym_continue_statement, STATE 11814), (sym_global_statement, STATE 11814),
    (sym_nonlocal_statement, STATE 11814), (sym_exec_statement, STATE 11814),
    (sym_type_alias_statement, STATE 11814), (sym_parameterized_alias_statement, STATE 11814),
    (sym_pattern, STATE 8086), (sym_tuple_pattern, STATE 8101), (sym_list_pattern, STATE 8101),
    (sym_list_splat_pattern, STATE 6795), (sym_as_pattern, STATE 7969),
    (sym_expression, STATE 9623), (sym_primary_expression, STATE 7326),
    (sym_comptime_expression, STATE 7017), (sym_transfer_expression, STATE 7017),
    (sym_not_operator, STATE 7969), (sym_boolean_operator, STATE 7969),
    (sym_binary_operator, STATE 7017), (sym_unary_operator, STATE 7017),
    (sym_comparison_operator, STATE 7969), (sym_lambda, STATE 7969),
    (sym_assignment, STATE 12425), (sym_augmented_assignment, STATE 12425),
    (sym_pattern_list, STATE 8578), (sym_yield, STATE 12425), (sym_attribute, STATE 6796),
    (sym_subscript, STATE 6797), (sym_call, STATE 6768), (sym_type, STATE 10130),
    (sym_called_type, STATE 9093), (sym_function_type, STATE 9093), (sym_splat_type, STATE 9093),
    (sym_generic_type, STATE 8287), (sym_union_type, STATE 9093),
    (sym_intersection_type, STATE 9093), (sym__intersection_operand, STATE 12294),
    (sym_constrained_type, STATE 9093), (sym_member_type, STATE 8165),
    (sym_mlir_type, STATE 7017), (sym_list, STATE 7017), (sym_set, STATE 7017),
    (sym_tuple, STATE 7017), (sym_dictionary, STATE 7017), (sym_struct_literal, STATE 7017),
    (sym_list_comprehension, STATE 7017), (sym_dictionary_comprehension, STATE 7017),
    (sym_set_comprehension, STATE 7017), (sym_generator_expression, STATE 7017),
    (sym_parenthesized_expression, STATE 7017), (sym_conditional_expression, STATE 7969),
    (sym_concatenated_string, STATE 7017), (sym_string, STATE 6729), (sym_await, STATE 7017),
    (sym_identifier, ACTIONS 327), (anon_sym_import, ACTIONS 11), (anon_sym_from, ACTIONS 13),
    (anon_sym_LPAREN, ACTIONS 329), (anon_sym_STAR, ACTIONS 331), (anon_sym_print, ACTIONS 333),
    (anon_sym_comptime, ACTIONS 335), (anon_sym_assert, ACTIONS 23),
    (anon_sym___comptime_assert, ACTIONS 25), (anon_sym_return, ACTIONS 27),
    (anon_sym_del, ACTIONS 29), (anon_sym_raise, ACTIONS 31), (anon_sym_pass, ACTIONS 33),
    (anon_sym_break, ACTIONS 35), (anon_sym_continue, ACTIONS 37), (anon_sym_match, ACTIONS 337),
    (anon_sym_async, ACTIONS 339), (anon_sym_def, ACTIONS 341), (anon_sym_LBRACK, ACTIONS 343),
    (anon_sym_LBRACE, ACTIONS 61), (anon_sym_STAR_STAR, ACTIONS 345),
    (anon_sym_global, ACTIONS 63), (anon_sym_nonlocal, ACTIONS 65), (anon_sym_exec, ACTIONS 347),
    (anon_sym_type, ACTIONS 349), (anon_sym_mut, ACTIONS 339), (anon_sym_out, ACTIONS 339),
    (anon_sym_DASH, ACTIONS 79), (anon_sym_PLUS, ACTIONS 79), (anon_sym_ref, ACTIONS 81),
    (anon_sym_var, ACTIONS 81), (anon_sym_not, ACTIONS 83), (anon_sym_TILDE, ACTIONS 79),
    (anon_sym_lambda, ACTIONS 85), (anon_sym_yield, ACTIONS 87), (sym_ellipsis, ACTIONS 89),
    (anon_sym___mlir_type, ACTIONS 91), (sym_integer, ACTIONS 93), (sym_float, ACTIONS 89),
    (anon_sym_await, ACTIONS 351), (sym_true, ACTIONS 93), (sym_false, ACTIONS 93),
    (sym_none, ACTIONS 93), (sym_comment, ACTIONS 3), (sym_line_continuation, ACTIONS 3),
    (sym__newline, ACTIONS 1477), (sym__indent, ACTIONS 1479), (sym_string_start, ACTIONS 97)]"

definition parse_table_1211 :: "(nat \<times> nat) list" where "parse_table_1211 = [
    (sym__simple_statements, STATE 6085), (sym_import_statement, STATE 12239),
    (sym_future_import_statement, STATE 12239), (sym_import_from_statement, STATE 12239),
    (sym_print_statement, STATE 12239), (sym_assert_statement, STATE 12239),
    (sym_comptime_assert_statement, STATE 12239), (sym_expression_statement, STATE 12239),
    (sym_tuple_expression, STATE 12425), (sym_named_expression, STATE 7969),
    (sym__named_expression_lhs, STATE 12752), (sym_return_statement, STATE 12239),
    (sym_delete_statement, STATE 12239), (sym_raise_statement, STATE 12239),
    (sym_pass_statement, STATE 12239), (sym_break_statement, STATE 12239),
    (sym_continue_statement, STATE 12239), (sym_global_statement, STATE 12239),
    (sym_nonlocal_statement, STATE 12239), (sym_exec_statement, STATE 12239),
    (sym_type_alias_statement, STATE 12239), (sym_parameterized_alias_statement, STATE 12239),
    (sym_pattern, STATE 8086), (sym_tuple_pattern, STATE 8101), (sym_list_pattern, STATE 8101),
    (sym_list_splat_pattern, STATE 6795), (sym_as_pattern, STATE 7969),
    (sym_expression, STATE 9623), (sym_primary_expression, STATE 7326),
    (sym_comptime_expression, STATE 7017), (sym_transfer_expression, STATE 7017),
    (sym_not_operator, STATE 7969), (sym_boolean_operator, STATE 7969),
    (sym_binary_operator, STATE 7017), (sym_unary_operator, STATE 7017),
    (sym_comparison_operator, STATE 7969), (sym_lambda, STATE 7969),
    (sym_assignment, STATE 12425), (sym_augmented_assignment, STATE 12425),
    (sym_pattern_list, STATE 8578), (sym_yield, STATE 12425), (sym_attribute, STATE 6796),
    (sym_subscript, STATE 6797), (sym_call, STATE 6768), (sym_type, STATE 10130),
    (sym_called_type, STATE 9093), (sym_function_type, STATE 9093), (sym_splat_type, STATE 9093),
    (sym_generic_type, STATE 8287), (sym_union_type, STATE 9093),
    (sym_intersection_type, STATE 9093), (sym__intersection_operand, STATE 12294),
    (sym_constrained_type, STATE 9093), (sym_member_type, STATE 8165),
    (sym_mlir_type, STATE 7017), (sym_list, STATE 7017), (sym_set, STATE 7017),
    (sym_tuple, STATE 7017), (sym_dictionary, STATE 7017), (sym_struct_literal, STATE 7017),
    (sym_list_comprehension, STATE 7017), (sym_dictionary_comprehension, STATE 7017),
    (sym_set_comprehension, STATE 7017), (sym_generator_expression, STATE 7017),
    (sym_parenthesized_expression, STATE 7017), (sym_conditional_expression, STATE 7969),
    (sym_concatenated_string, STATE 7017), (sym_string, STATE 6729), (sym_await, STATE 7017),
    (sym_identifier, ACTIONS 327), (anon_sym_import, ACTIONS 11), (anon_sym_from, ACTIONS 13),
    (anon_sym_LPAREN, ACTIONS 329), (anon_sym_STAR, ACTIONS 331), (anon_sym_print, ACTIONS 333),
    (anon_sym_comptime, ACTIONS 335), (anon_sym_assert, ACTIONS 23),
    (anon_sym___comptime_assert, ACTIONS 25), (anon_sym_return, ACTIONS 27),
    (anon_sym_del, ACTIONS 29), (anon_sym_raise, ACTIONS 31), (anon_sym_pass, ACTIONS 33),
    (anon_sym_break, ACTIONS 35), (anon_sym_continue, ACTIONS 37), (anon_sym_match, ACTIONS 337),
    (anon_sym_async, ACTIONS 339), (anon_sym_def, ACTIONS 341), (anon_sym_LBRACK, ACTIONS 343),
    (anon_sym_LBRACE, ACTIONS 61), (anon_sym_STAR_STAR, ACTIONS 345),
    (anon_sym_global, ACTIONS 63), (anon_sym_nonlocal, ACTIONS 65), (anon_sym_exec, ACTIONS 347),
    (anon_sym_type, ACTIONS 349), (anon_sym_mut, ACTIONS 339), (anon_sym_out, ACTIONS 339),
    (anon_sym_DASH, ACTIONS 79), (anon_sym_PLUS, ACTIONS 79), (anon_sym_ref, ACTIONS 81),
    (anon_sym_var, ACTIONS 81), (anon_sym_not, ACTIONS 83), (anon_sym_TILDE, ACTIONS 79),
    (anon_sym_lambda, ACTIONS 85), (anon_sym_yield, ACTIONS 87), (sym_ellipsis, ACTIONS 89),
    (anon_sym___mlir_type, ACTIONS 91), (sym_integer, ACTIONS 93), (sym_float, ACTIONS 89),
    (anon_sym_await, ACTIONS 351), (sym_true, ACTIONS 93), (sym_false, ACTIONS 93),
    (sym_none, ACTIONS 93), (sym_comment, ACTIONS 3), (sym_line_continuation, ACTIONS 3),
    (sym__newline, ACTIONS 1481), (sym__indent, ACTIONS 1483), (sym_string_start, ACTIONS 97)]"

definition parse_table_1212 :: "(nat \<times> nat) list" where "parse_table_1212 = [
    (sym__simple_statements, STATE 5467), (sym_import_statement, STATE 12239),
    (sym_future_import_statement, STATE 12239), (sym_import_from_statement, STATE 12239),
    (sym_print_statement, STATE 12239), (sym_assert_statement, STATE 12239),
    (sym_comptime_assert_statement, STATE 12239), (sym_expression_statement, STATE 12239),
    (sym_tuple_expression, STATE 12425), (sym_named_expression, STATE 7969),
    (sym__named_expression_lhs, STATE 12752), (sym_return_statement, STATE 12239),
    (sym_delete_statement, STATE 12239), (sym_raise_statement, STATE 12239),
    (sym_pass_statement, STATE 12239), (sym_break_statement, STATE 12239),
    (sym_continue_statement, STATE 12239), (sym_global_statement, STATE 12239),
    (sym_nonlocal_statement, STATE 12239), (sym_exec_statement, STATE 12239),
    (sym_type_alias_statement, STATE 12239), (sym_parameterized_alias_statement, STATE 12239),
    (sym_pattern, STATE 8086), (sym_tuple_pattern, STATE 8101), (sym_list_pattern, STATE 8101),
    (sym_list_splat_pattern, STATE 6795), (sym_as_pattern, STATE 7969),
    (sym_expression, STATE 9623), (sym_primary_expression, STATE 7326),
    (sym_comptime_expression, STATE 7017), (sym_transfer_expression, STATE 7017),
    (sym_not_operator, STATE 7969), (sym_boolean_operator, STATE 7969),
    (sym_binary_operator, STATE 7017), (sym_unary_operator, STATE 7017),
    (sym_comparison_operator, STATE 7969), (sym_lambda, STATE 7969),
    (sym_assignment, STATE 12425), (sym_augmented_assignment, STATE 12425),
    (sym_pattern_list, STATE 8578), (sym_yield, STATE 12425), (sym_attribute, STATE 6796),
    (sym_subscript, STATE 6797), (sym_call, STATE 6768), (sym_type, STATE 10130),
    (sym_called_type, STATE 9093), (sym_function_type, STATE 9093), (sym_splat_type, STATE 9093),
    (sym_generic_type, STATE 8287), (sym_union_type, STATE 9093),
    (sym_intersection_type, STATE 9093), (sym__intersection_operand, STATE 12294),
    (sym_constrained_type, STATE 9093), (sym_member_type, STATE 8165),
    (sym_mlir_type, STATE 7017), (sym_list, STATE 7017), (sym_set, STATE 7017),
    (sym_tuple, STATE 7017), (sym_dictionary, STATE 7017), (sym_struct_literal, STATE 7017),
    (sym_list_comprehension, STATE 7017), (sym_dictionary_comprehension, STATE 7017),
    (sym_set_comprehension, STATE 7017), (sym_generator_expression, STATE 7017),
    (sym_parenthesized_expression, STATE 7017), (sym_conditional_expression, STATE 7969),
    (sym_concatenated_string, STATE 7017), (sym_string, STATE 6729), (sym_await, STATE 7017),
    (sym_identifier, ACTIONS 327), (anon_sym_import, ACTIONS 11), (anon_sym_from, ACTIONS 13),
    (anon_sym_LPAREN, ACTIONS 329), (anon_sym_STAR, ACTIONS 331), (anon_sym_print, ACTIONS 333),
    (anon_sym_comptime, ACTIONS 335), (anon_sym_assert, ACTIONS 23),
    (anon_sym___comptime_assert, ACTIONS 25), (anon_sym_return, ACTIONS 27),
    (anon_sym_del, ACTIONS 29), (anon_sym_raise, ACTIONS 31), (anon_sym_pass, ACTIONS 33),
    (anon_sym_break, ACTIONS 35), (anon_sym_continue, ACTIONS 37), (anon_sym_match, ACTIONS 337),
    (anon_sym_async, ACTIONS 339), (anon_sym_def, ACTIONS 341), (anon_sym_LBRACK, ACTIONS 343),
    (anon_sym_LBRACE, ACTIONS 61), (anon_sym_STAR_STAR, ACTIONS 345),
    (anon_sym_global, ACTIONS 63), (anon_sym_nonlocal, ACTIONS 65), (anon_sym_exec, ACTIONS 347),
    (anon_sym_type, ACTIONS 349), (anon_sym_mut, ACTIONS 339), (anon_sym_out, ACTIONS 339),
    (anon_sym_DASH, ACTIONS 79), (anon_sym_PLUS, ACTIONS 79), (anon_sym_ref, ACTIONS 81),
    (anon_sym_var, ACTIONS 81), (anon_sym_not, ACTIONS 83), (anon_sym_TILDE, ACTIONS 79),
    (anon_sym_lambda, ACTIONS 85), (anon_sym_yield, ACTIONS 87), (sym_ellipsis, ACTIONS 89),
    (anon_sym___mlir_type, ACTIONS 91), (sym_integer, ACTIONS 93), (sym_float, ACTIONS 89),
    (anon_sym_await, ACTIONS 351), (sym_true, ACTIONS 93), (sym_false, ACTIONS 93),
    (sym_none, ACTIONS 93), (sym_comment, ACTIONS 3), (sym_line_continuation, ACTIONS 3),
    (sym__newline, ACTIONS 1485), (sym__indent, ACTIONS 1487), (sym_string_start, ACTIONS 97)]"

definition parse_table_1213 :: "(nat \<times> nat) list" where "parse_table_1213 = [
    (sym__simple_statements, STATE 4857), (sym_import_statement, STATE 11814),
    (sym_future_import_statement, STATE 11814), (sym_import_from_statement, STATE 11814),
    (sym_print_statement, STATE 11814), (sym_assert_statement, STATE 11814),
    (sym_comptime_assert_statement, STATE 11814), (sym_expression_statement, STATE 11814),
    (sym_tuple_expression, STATE 12425), (sym_named_expression, STATE 7969),
    (sym__named_expression_lhs, STATE 12752), (sym_return_statement, STATE 11814),
    (sym_delete_statement, STATE 11814), (sym_raise_statement, STATE 11814),
    (sym_pass_statement, STATE 11814), (sym_break_statement, STATE 11814),
    (sym_continue_statement, STATE 11814), (sym_global_statement, STATE 11814),
    (sym_nonlocal_statement, STATE 11814), (sym_exec_statement, STATE 11814),
    (sym_type_alias_statement, STATE 11814), (sym_parameterized_alias_statement, STATE 11814),
    (sym_pattern, STATE 8086), (sym_tuple_pattern, STATE 8101), (sym_list_pattern, STATE 8101),
    (sym_list_splat_pattern, STATE 6795), (sym_as_pattern, STATE 7969),
    (sym_expression, STATE 9623), (sym_primary_expression, STATE 7326),
    (sym_comptime_expression, STATE 7017), (sym_transfer_expression, STATE 7017),
    (sym_not_operator, STATE 7969), (sym_boolean_operator, STATE 7969),
    (sym_binary_operator, STATE 7017), (sym_unary_operator, STATE 7017),
    (sym_comparison_operator, STATE 7969), (sym_lambda, STATE 7969),
    (sym_assignment, STATE 12425), (sym_augmented_assignment, STATE 12425),
    (sym_pattern_list, STATE 8578), (sym_yield, STATE 12425), (sym_attribute, STATE 6796),
    (sym_subscript, STATE 6797), (sym_call, STATE 6768), (sym_type, STATE 10130),
    (sym_called_type, STATE 9093), (sym_function_type, STATE 9093), (sym_splat_type, STATE 9093),
    (sym_generic_type, STATE 8287), (sym_union_type, STATE 9093),
    (sym_intersection_type, STATE 9093), (sym__intersection_operand, STATE 12294),
    (sym_constrained_type, STATE 9093), (sym_member_type, STATE 8165),
    (sym_mlir_type, STATE 7017), (sym_list, STATE 7017), (sym_set, STATE 7017),
    (sym_tuple, STATE 7017), (sym_dictionary, STATE 7017), (sym_struct_literal, STATE 7017),
    (sym_list_comprehension, STATE 7017), (sym_dictionary_comprehension, STATE 7017),
    (sym_set_comprehension, STATE 7017), (sym_generator_expression, STATE 7017),
    (sym_parenthesized_expression, STATE 7017), (sym_conditional_expression, STATE 7969),
    (sym_concatenated_string, STATE 7017), (sym_string, STATE 6729), (sym_await, STATE 7017),
    (sym_identifier, ACTIONS 327), (anon_sym_import, ACTIONS 11), (anon_sym_from, ACTIONS 13),
    (anon_sym_LPAREN, ACTIONS 329), (anon_sym_STAR, ACTIONS 331), (anon_sym_print, ACTIONS 333),
    (anon_sym_comptime, ACTIONS 335), (anon_sym_assert, ACTIONS 23),
    (anon_sym___comptime_assert, ACTIONS 25), (anon_sym_return, ACTIONS 27),
    (anon_sym_del, ACTIONS 29), (anon_sym_raise, ACTIONS 31), (anon_sym_pass, ACTIONS 33),
    (anon_sym_break, ACTIONS 35), (anon_sym_continue, ACTIONS 37), (anon_sym_match, ACTIONS 337),
    (anon_sym_async, ACTIONS 339), (anon_sym_def, ACTIONS 341), (anon_sym_LBRACK, ACTIONS 343),
    (anon_sym_LBRACE, ACTIONS 61), (anon_sym_STAR_STAR, ACTIONS 345),
    (anon_sym_global, ACTIONS 63), (anon_sym_nonlocal, ACTIONS 65), (anon_sym_exec, ACTIONS 347),
    (anon_sym_type, ACTIONS 349), (anon_sym_mut, ACTIONS 339), (anon_sym_out, ACTIONS 339),
    (anon_sym_DASH, ACTIONS 79), (anon_sym_PLUS, ACTIONS 79), (anon_sym_ref, ACTIONS 81),
    (anon_sym_var, ACTIONS 81), (anon_sym_not, ACTIONS 83), (anon_sym_TILDE, ACTIONS 79),
    (anon_sym_lambda, ACTIONS 85), (anon_sym_yield, ACTIONS 87), (sym_ellipsis, ACTIONS 89),
    (anon_sym___mlir_type, ACTIONS 91), (sym_integer, ACTIONS 93), (sym_float, ACTIONS 89),
    (anon_sym_await, ACTIONS 351), (sym_true, ACTIONS 93), (sym_false, ACTIONS 93),
    (sym_none, ACTIONS 93), (sym_comment, ACTIONS 3), (sym_line_continuation, ACTIONS 3),
    (sym__newline, ACTIONS 1489), (sym__indent, ACTIONS 1491), (sym_string_start, ACTIONS 97)]"

definition parse_table_1214 :: "(nat \<times> nat) list" where "parse_table_1214 = [
    (sym_named_expression, STATE 8041), (sym__named_expression_lhs, STATE 12486),
    (sym_type_parameter, STATE 8611), (sym_list_splat_pattern, STATE 7249),
    (sym_as_pattern, STATE 8041), (sym_expression, STATE 9639),
    (sym_primary_expression, STATE 7325), (sym_comptime_expression, STATE 7218),
    (sym_transfer_expression, STATE 7218), (sym_not_operator, STATE 8041),
    (sym_boolean_operator, STATE 8041), (sym_binary_operator, STATE 7218),
    (sym_unary_operator, STATE 7218), (sym_comparison_operator, STATE 8041),
    (sym_lambda, STATE 8041), (sym_attribute, STATE 7218), (sym_subscript, STATE 7264),
    (sym_call, STATE 7295), (sym_type, STATE 11718), (sym_called_type, STATE 9093),
    (sym_function_type, STATE 9093), (sym_splat_type, STATE 9093),
    (sym_generic_type, STATE 8287), (sym_union_type, STATE 9093),
    (sym_intersection_type, STATE 9093), (sym__intersection_operand, STATE 12294),
    (sym_constrained_type, STATE 9093), (sym_member_type, STATE 8165),
    (sym_mlir_type, STATE 7218), (sym_list, STATE 7218), (sym_set, STATE 7218),
    (sym_tuple, STATE 7218), (sym_dictionary, STATE 7218), (sym_struct_literal, STATE 7218),
    (sym_list_comprehension, STATE 7218), (sym_dictionary_comprehension, STATE 7218),
    (sym_set_comprehension, STATE 7218), (sym_generator_expression, STATE 7218),
    (sym_parenthesized_expression, STATE 7218), (sym_conditional_expression, STATE 8041),
    (sym_concatenated_string, STATE 7218), (sym_string, STATE 6954), (sym_await, STATE 7218),
    (sym_identifier, ACTIONS 1493), (anon_sym_SEMI, ACTIONS 1495), (anon_sym_DOT, ACTIONS 1497),
    (anon_sym_LPAREN, ACTIONS 1499), (anon_sym_COMMA, ACTIONS 1502), (anon_sym_as, ACTIONS 1497),
    (anon_sym_STAR, ACTIONS 1505), (anon_sym_print, ACTIONS 1508),
    (anon_sym_GT_GT, ACTIONS 1497), (anon_sym_comptime, ACTIONS 1510),
    (anon_sym_COLON_EQ, ACTIONS 1512), (anon_sym_COLON, ACTIONS 1514),
    (anon_sym_if, ACTIONS 1497), (anon_sym_match, ACTIONS 1517), (anon_sym_async, ACTIONS 1508),
    (anon_sym_in, ACTIONS 1497), (anon_sym_def, ACTIONS 341), (anon_sym_LBRACK, ACTIONS 1519),
    (anon_sym_LBRACE, ACTIONS 1521), (anon_sym_STAR_STAR, ACTIONS 1523),
    (anon_sym_exec, ACTIONS 1508), (anon_sym_type, ACTIONS 1526), (anon_sym_EQ, ACTIONS 1528),
    (anon_sym_mut, ACTIONS 1508), (anon_sym_out, ACTIONS 1508),
    (anon_sym_SLASH_SLASH, ACTIONS 1497), (anon_sym_AT, ACTIONS 1497),
    (anon_sym_DASH, ACTIONS 1530), (anon_sym_PIPE, ACTIONS 1497), (anon_sym_PLUS, ACTIONS 1530),
    (anon_sym_where, ACTIONS 1497), (anon_sym_CARET, ACTIONS 1497), (anon_sym_not, ACTIONS 1533),
    (anon_sym_and, ACTIONS 1497), (anon_sym_or, ACTIONS 1497), (anon_sym_SLASH, ACTIONS 1497),
    (anon_sym_PERCENT, ACTIONS 1497), (anon_sym_AMP, ACTIONS 1497),
    (anon_sym_LT_LT, ACTIONS 1497), (anon_sym_TILDE, ACTIONS 1536), (anon_sym_is, ACTIONS 1497),
    (anon_sym_LT, ACTIONS 1497), (anon_sym_LT_EQ, ACTIONS 1495), (anon_sym_EQ_EQ, ACTIONS 1495),
    (anon_sym_BANG_EQ, ACTIONS 1495), (anon_sym_GT_EQ, ACTIONS 1495),
    (anon_sym_GT, ACTIONS 1497), (anon_sym_LT_GT, ACTIONS 1495), (anon_sym_lambda, ACTIONS 1538),
    (anon_sym_PLUS_EQ, ACTIONS 1540), (anon_sym_DASH_EQ, ACTIONS 1540),
    (anon_sym_STAR_EQ, ACTIONS 1540), (anon_sym_SLASH_EQ, ACTIONS 1540),
    (anon_sym_AT_EQ, ACTIONS 1540), (anon_sym_SLASH_SLASH_EQ, ACTIONS 1540),
    (anon_sym_PERCENT_EQ, ACTIONS 1540), (anon_sym_STAR_STAR_EQ, ACTIONS 1540),
    (anon_sym_GT_GT_EQ, ACTIONS 1540), (anon_sym_LT_LT_EQ, ACTIONS 1540),
    (anon_sym_AMP_EQ, ACTIONS 1540), (anon_sym_CARET_EQ, ACTIONS 1540),
    (anon_sym_PIPE_EQ, ACTIONS 1540), (sym_ellipsis, ACTIONS 1542),
    (anon_sym___mlir_type, ACTIONS 1544), (sym_integer, ACTIONS 1546), (sym_float, ACTIONS 1542),
    (anon_sym_await, ACTIONS 1548), (sym_true, ACTIONS 1546), (sym_false, ACTIONS 1546),
    (sym_none, ACTIONS 1546), (sym_comment, ACTIONS 3), (sym_line_continuation, ACTIONS 3),
    (sym__newline, ACTIONS 1495), (sym_string_start, ACTIONS 1550)]"

definition parse_table_1215 :: "(nat \<times> nat) list" where "parse_table_1215 = [
    (sym__simple_statements, STATE 5560), (sym_import_statement, STATE 12239),
    (sym_future_import_statement, STATE 12239), (sym_import_from_statement, STATE 12239),
    (sym_print_statement, STATE 12239), (sym_assert_statement, STATE 12239),
    (sym_comptime_assert_statement, STATE 12239), (sym_expression_statement, STATE 12239),
    (sym_tuple_expression, STATE 12425), (sym_named_expression, STATE 7969),
    (sym__named_expression_lhs, STATE 12752), (sym_return_statement, STATE 12239),
    (sym_delete_statement, STATE 12239), (sym_raise_statement, STATE 12239),
    (sym_pass_statement, STATE 12239), (sym_break_statement, STATE 12239),
    (sym_continue_statement, STATE 12239), (sym_global_statement, STATE 12239),
    (sym_nonlocal_statement, STATE 12239), (sym_exec_statement, STATE 12239),
    (sym_type_alias_statement, STATE 12239), (sym_parameterized_alias_statement, STATE 12239),
    (sym_pattern, STATE 8086), (sym_tuple_pattern, STATE 8101), (sym_list_pattern, STATE 8101),
    (sym_list_splat_pattern, STATE 6795), (sym_as_pattern, STATE 7969),
    (sym_expression, STATE 9623), (sym_primary_expression, STATE 7326),
    (sym_comptime_expression, STATE 7017), (sym_transfer_expression, STATE 7017),
    (sym_not_operator, STATE 7969), (sym_boolean_operator, STATE 7969),
    (sym_binary_operator, STATE 7017), (sym_unary_operator, STATE 7017),
    (sym_comparison_operator, STATE 7969), (sym_lambda, STATE 7969),
    (sym_assignment, STATE 12425), (sym_augmented_assignment, STATE 12425),
    (sym_pattern_list, STATE 8578), (sym_yield, STATE 12425), (sym_attribute, STATE 6796),
    (sym_subscript, STATE 6797), (sym_call, STATE 6768), (sym_type, STATE 10130),
    (sym_called_type, STATE 9093), (sym_function_type, STATE 9093), (sym_splat_type, STATE 9093),
    (sym_generic_type, STATE 8287), (sym_union_type, STATE 9093),
    (sym_intersection_type, STATE 9093), (sym__intersection_operand, STATE 12294),
    (sym_constrained_type, STATE 9093), (sym_member_type, STATE 8165),
    (sym_mlir_type, STATE 7017), (sym_list, STATE 7017), (sym_set, STATE 7017),
    (sym_tuple, STATE 7017), (sym_dictionary, STATE 7017), (sym_struct_literal, STATE 7017),
    (sym_list_comprehension, STATE 7017), (sym_dictionary_comprehension, STATE 7017),
    (sym_set_comprehension, STATE 7017), (sym_generator_expression, STATE 7017),
    (sym_parenthesized_expression, STATE 7017), (sym_conditional_expression, STATE 7969),
    (sym_concatenated_string, STATE 7017), (sym_string, STATE 6729), (sym_await, STATE 7017),
    (sym_identifier, ACTIONS 327), (anon_sym_import, ACTIONS 11), (anon_sym_from, ACTIONS 13),
    (anon_sym_LPAREN, ACTIONS 329), (anon_sym_STAR, ACTIONS 331), (anon_sym_print, ACTIONS 333),
    (anon_sym_comptime, ACTIONS 335), (anon_sym_assert, ACTIONS 23),
    (anon_sym___comptime_assert, ACTIONS 25), (anon_sym_return, ACTIONS 27),
    (anon_sym_del, ACTIONS 29), (anon_sym_raise, ACTIONS 31), (anon_sym_pass, ACTIONS 33),
    (anon_sym_break, ACTIONS 35), (anon_sym_continue, ACTIONS 37), (anon_sym_match, ACTIONS 337),
    (anon_sym_async, ACTIONS 339), (anon_sym_def, ACTIONS 341), (anon_sym_LBRACK, ACTIONS 343),
    (anon_sym_LBRACE, ACTIONS 61), (anon_sym_STAR_STAR, ACTIONS 345),
    (anon_sym_global, ACTIONS 63), (anon_sym_nonlocal, ACTIONS 65), (anon_sym_exec, ACTIONS 347),
    (anon_sym_type, ACTIONS 349), (anon_sym_mut, ACTIONS 339), (anon_sym_out, ACTIONS 339),
    (anon_sym_DASH, ACTIONS 79), (anon_sym_PLUS, ACTIONS 79), (anon_sym_ref, ACTIONS 81),
    (anon_sym_var, ACTIONS 81), (anon_sym_not, ACTIONS 83), (anon_sym_TILDE, ACTIONS 79),
    (anon_sym_lambda, ACTIONS 85), (anon_sym_yield, ACTIONS 87), (sym_ellipsis, ACTIONS 89),
    (anon_sym___mlir_type, ACTIONS 91), (sym_integer, ACTIONS 93), (sym_float, ACTIONS 89),
    (anon_sym_await, ACTIONS 351), (sym_true, ACTIONS 93), (sym_false, ACTIONS 93),
    (sym_none, ACTIONS 93), (sym_comment, ACTIONS 3), (sym_line_continuation, ACTIONS 3),
    (sym__newline, ACTIONS 1552), (sym__indent, ACTIONS 1554), (sym_string_start, ACTIONS 97)]"

definition parse_table_1216 :: "(nat \<times> nat) list" where "parse_table_1216 = [
    (sym__simple_statements, STATE 6073), (sym_import_statement, STATE 11814),
    (sym_future_import_statement, STATE 11814), (sym_import_from_statement, STATE 11814),
    (sym_print_statement, STATE 11814), (sym_assert_statement, STATE 11814),
    (sym_comptime_assert_statement, STATE 11814), (sym_expression_statement, STATE 11814),
    (sym_tuple_expression, STATE 12425), (sym_named_expression, STATE 7969),
    (sym__named_expression_lhs, STATE 12752), (sym_return_statement, STATE 11814),
    (sym_delete_statement, STATE 11814), (sym_raise_statement, STATE 11814),
    (sym_pass_statement, STATE 11814), (sym_break_statement, STATE 11814),
    (sym_continue_statement, STATE 11814), (sym_global_statement, STATE 11814),
    (sym_nonlocal_statement, STATE 11814), (sym_exec_statement, STATE 11814),
    (sym_type_alias_statement, STATE 11814), (sym_parameterized_alias_statement, STATE 11814),
    (sym_pattern, STATE 8086), (sym_tuple_pattern, STATE 8101), (sym_list_pattern, STATE 8101),
    (sym_list_splat_pattern, STATE 6795), (sym_as_pattern, STATE 7969),
    (sym_expression, STATE 9623), (sym_primary_expression, STATE 7326),
    (sym_comptime_expression, STATE 7017), (sym_transfer_expression, STATE 7017),
    (sym_not_operator, STATE 7969), (sym_boolean_operator, STATE 7969),
    (sym_binary_operator, STATE 7017), (sym_unary_operator, STATE 7017),
    (sym_comparison_operator, STATE 7969), (sym_lambda, STATE 7969),
    (sym_assignment, STATE 12425), (sym_augmented_assignment, STATE 12425),
    (sym_pattern_list, STATE 8578), (sym_yield, STATE 12425), (sym_attribute, STATE 6796),
    (sym_subscript, STATE 6797), (sym_call, STATE 6768), (sym_type, STATE 10130),
    (sym_called_type, STATE 9093), (sym_function_type, STATE 9093), (sym_splat_type, STATE 9093),
    (sym_generic_type, STATE 8287), (sym_union_type, STATE 9093),
    (sym_intersection_type, STATE 9093), (sym__intersection_operand, STATE 12294),
    (sym_constrained_type, STATE 9093), (sym_member_type, STATE 8165),
    (sym_mlir_type, STATE 7017), (sym_list, STATE 7017), (sym_set, STATE 7017),
    (sym_tuple, STATE 7017), (sym_dictionary, STATE 7017), (sym_struct_literal, STATE 7017),
    (sym_list_comprehension, STATE 7017), (sym_dictionary_comprehension, STATE 7017),
    (sym_set_comprehension, STATE 7017), (sym_generator_expression, STATE 7017),
    (sym_parenthesized_expression, STATE 7017), (sym_conditional_expression, STATE 7969),
    (sym_concatenated_string, STATE 7017), (sym_string, STATE 6729), (sym_await, STATE 7017),
    (sym_identifier, ACTIONS 327), (anon_sym_import, ACTIONS 11), (anon_sym_from, ACTIONS 13),
    (anon_sym_LPAREN, ACTIONS 329), (anon_sym_STAR, ACTIONS 331), (anon_sym_print, ACTIONS 333),
    (anon_sym_comptime, ACTIONS 335), (anon_sym_assert, ACTIONS 23),
    (anon_sym___comptime_assert, ACTIONS 25), (anon_sym_return, ACTIONS 27),
    (anon_sym_del, ACTIONS 29), (anon_sym_raise, ACTIONS 31), (anon_sym_pass, ACTIONS 33),
    (anon_sym_break, ACTIONS 35), (anon_sym_continue, ACTIONS 37), (anon_sym_match, ACTIONS 337),
    (anon_sym_async, ACTIONS 339), (anon_sym_def, ACTIONS 341), (anon_sym_LBRACK, ACTIONS 343),
    (anon_sym_LBRACE, ACTIONS 61), (anon_sym_STAR_STAR, ACTIONS 345),
    (anon_sym_global, ACTIONS 63), (anon_sym_nonlocal, ACTIONS 65), (anon_sym_exec, ACTIONS 347),
    (anon_sym_type, ACTIONS 349), (anon_sym_mut, ACTIONS 339), (anon_sym_out, ACTIONS 339),
    (anon_sym_DASH, ACTIONS 79), (anon_sym_PLUS, ACTIONS 79), (anon_sym_ref, ACTIONS 81),
    (anon_sym_var, ACTIONS 81), (anon_sym_not, ACTIONS 83), (anon_sym_TILDE, ACTIONS 79),
    (anon_sym_lambda, ACTIONS 85), (anon_sym_yield, ACTIONS 87), (sym_ellipsis, ACTIONS 89),
    (anon_sym___mlir_type, ACTIONS 91), (sym_integer, ACTIONS 93), (sym_float, ACTIONS 89),
    (anon_sym_await, ACTIONS 351), (sym_true, ACTIONS 93), (sym_false, ACTIONS 93),
    (sym_none, ACTIONS 93), (sym_comment, ACTIONS 3), (sym_line_continuation, ACTIONS 3),
    (sym__newline, ACTIONS 1556), (sym__indent, ACTIONS 1558), (sym_string_start, ACTIONS 97)]"

definition parse_table_1217 :: "(nat \<times> nat) list" where "parse_table_1217 = [
    (sym__simple_statements, STATE 5703), (sym_import_statement, STATE 11814),
    (sym_future_import_statement, STATE 11814), (sym_import_from_statement, STATE 11814),
    (sym_print_statement, STATE 11814), (sym_assert_statement, STATE 11814),
    (sym_comptime_assert_statement, STATE 11814), (sym_expression_statement, STATE 11814),
    (sym_tuple_expression, STATE 12425), (sym_named_expression, STATE 7969),
    (sym__named_expression_lhs, STATE 12752), (sym_return_statement, STATE 11814),
    (sym_delete_statement, STATE 11814), (sym_raise_statement, STATE 11814),
    (sym_pass_statement, STATE 11814), (sym_break_statement, STATE 11814),
    (sym_continue_statement, STATE 11814), (sym_global_statement, STATE 11814),
    (sym_nonlocal_statement, STATE 11814), (sym_exec_statement, STATE 11814),
    (sym_type_alias_statement, STATE 11814), (sym_parameterized_alias_statement, STATE 11814),
    (sym_pattern, STATE 8086), (sym_tuple_pattern, STATE 8101), (sym_list_pattern, STATE 8101),
    (sym_list_splat_pattern, STATE 6795), (sym_as_pattern, STATE 7969),
    (sym_expression, STATE 9623), (sym_primary_expression, STATE 7326),
    (sym_comptime_expression, STATE 7017), (sym_transfer_expression, STATE 7017),
    (sym_not_operator, STATE 7969), (sym_boolean_operator, STATE 7969),
    (sym_binary_operator, STATE 7017), (sym_unary_operator, STATE 7017),
    (sym_comparison_operator, STATE 7969), (sym_lambda, STATE 7969),
    (sym_assignment, STATE 12425), (sym_augmented_assignment, STATE 12425),
    (sym_pattern_list, STATE 8578), (sym_yield, STATE 12425), (sym_attribute, STATE 6796),
    (sym_subscript, STATE 6797), (sym_call, STATE 6768), (sym_type, STATE 10130),
    (sym_called_type, STATE 9093), (sym_function_type, STATE 9093), (sym_splat_type, STATE 9093),
    (sym_generic_type, STATE 8287), (sym_union_type, STATE 9093),
    (sym_intersection_type, STATE 9093), (sym__intersection_operand, STATE 12294),
    (sym_constrained_type, STATE 9093), (sym_member_type, STATE 8165),
    (sym_mlir_type, STATE 7017), (sym_list, STATE 7017), (sym_set, STATE 7017),
    (sym_tuple, STATE 7017), (sym_dictionary, STATE 7017), (sym_struct_literal, STATE 7017),
    (sym_list_comprehension, STATE 7017), (sym_dictionary_comprehension, STATE 7017),
    (sym_set_comprehension, STATE 7017), (sym_generator_expression, STATE 7017),
    (sym_parenthesized_expression, STATE 7017), (sym_conditional_expression, STATE 7969),
    (sym_concatenated_string, STATE 7017), (sym_string, STATE 6729), (sym_await, STATE 7017),
    (sym_identifier, ACTIONS 327), (anon_sym_import, ACTIONS 11), (anon_sym_from, ACTIONS 13),
    (anon_sym_LPAREN, ACTIONS 329), (anon_sym_STAR, ACTIONS 331), (anon_sym_print, ACTIONS 333),
    (anon_sym_comptime, ACTIONS 335), (anon_sym_assert, ACTIONS 23),
    (anon_sym___comptime_assert, ACTIONS 25), (anon_sym_return, ACTIONS 27),
    (anon_sym_del, ACTIONS 29), (anon_sym_raise, ACTIONS 31), (anon_sym_pass, ACTIONS 33),
    (anon_sym_break, ACTIONS 35), (anon_sym_continue, ACTIONS 37), (anon_sym_match, ACTIONS 337),
    (anon_sym_async, ACTIONS 339), (anon_sym_def, ACTIONS 341), (anon_sym_LBRACK, ACTIONS 343),
    (anon_sym_LBRACE, ACTIONS 61), (anon_sym_STAR_STAR, ACTIONS 345),
    (anon_sym_global, ACTIONS 63), (anon_sym_nonlocal, ACTIONS 65), (anon_sym_exec, ACTIONS 347),
    (anon_sym_type, ACTIONS 349), (anon_sym_mut, ACTIONS 339), (anon_sym_out, ACTIONS 339),
    (anon_sym_DASH, ACTIONS 79), (anon_sym_PLUS, ACTIONS 79), (anon_sym_ref, ACTIONS 81),
    (anon_sym_var, ACTIONS 81), (anon_sym_not, ACTIONS 83), (anon_sym_TILDE, ACTIONS 79),
    (anon_sym_lambda, ACTIONS 85), (anon_sym_yield, ACTIONS 87), (sym_ellipsis, ACTIONS 89),
    (anon_sym___mlir_type, ACTIONS 91), (sym_integer, ACTIONS 93), (sym_float, ACTIONS 89),
    (anon_sym_await, ACTIONS 351), (sym_true, ACTIONS 93), (sym_false, ACTIONS 93),
    (sym_none, ACTIONS 93), (sym_comment, ACTIONS 3), (sym_line_continuation, ACTIONS 3),
    (sym__newline, ACTIONS 1560), (sym__indent, ACTIONS 1562), (sym_string_start, ACTIONS 97)]"

definition parse_table_1218 :: "(nat \<times> nat) list" where "parse_table_1218 = [
    (sym_named_expression, STATE 8041), (sym__named_expression_lhs, STATE 12486),
    (sym_list_splat_pattern, STATE 7249), (sym_as_pattern, STATE 8041),
    (sym_expression, STATE 9639), (sym_primary_expression, STATE 7325),
    (sym_comptime_expression, STATE 7218), (sym_transfer_expression, STATE 7218),
    (sym_not_operator, STATE 8041), (sym_boolean_operator, STATE 8041),
    (sym_binary_operator, STATE 7218), (sym_unary_operator, STATE 7218),
    (sym_comparison_operator, STATE 8041), (sym_lambda, STATE 8041), (sym_attribute, STATE 7218),
    (sym_subscript, STATE 7264), (sym_call, STATE 7295), (sym_type, STATE 11718),
    (sym_called_type, STATE 9093), (sym_function_type, STATE 9093), (sym_splat_type, STATE 9093),
    (sym_generic_type, STATE 8287), (sym_union_type, STATE 9093),
    (sym_intersection_type, STATE 9093), (sym__intersection_operand, STATE 12294),
    (sym_constrained_type, STATE 9093), (sym_member_type, STATE 8165),
    (sym_mlir_type, STATE 7218), (sym_list, STATE 7218), (sym_set, STATE 7218),
    (sym_tuple, STATE 7218), (sym_dictionary, STATE 7218), (sym_struct_literal, STATE 7218),
    (sym_list_comprehension, STATE 7218), (sym_dictionary_comprehension, STATE 7218),
    (sym_set_comprehension, STATE 7218), (sym_generator_expression, STATE 7218),
    (sym_parenthesized_expression, STATE 7218), (sym_conditional_expression, STATE 8041),
    (sym_concatenated_string, STATE 7218), (sym_string, STATE 6954), (sym_await, STATE 7218),
    (sym_identifier, ACTIONS 1493), (anon_sym_SEMI, ACTIONS 1495), (anon_sym_DOT, ACTIONS 1497),
    (anon_sym_LPAREN, ACTIONS 1499), (anon_sym_COMMA, ACTIONS 1502), (anon_sym_as, ACTIONS 1497),
    (anon_sym_STAR, ACTIONS 1505), (anon_sym_print, ACTIONS 1508),
    (anon_sym_GT_GT, ACTIONS 1497), (anon_sym_comptime, ACTIONS 1510),
    (anon_sym_COLON_EQ, ACTIONS 1512), (anon_sym_COLON, ACTIONS 1528),
    (anon_sym_if, ACTIONS 1497), (anon_sym_match, ACTIONS 1517), (anon_sym_async, ACTIONS 1508),
    (anon_sym_in, ACTIONS 1497), (anon_sym_def, ACTIONS 341), (anon_sym_LBRACK, ACTIONS 1564),
    (anon_sym_LBRACE, ACTIONS 1521), (anon_sym_STAR_STAR, ACTIONS 1523),
    (anon_sym_exec, ACTIONS 1508), (anon_sym_type, ACTIONS 1526), (anon_sym_EQ, ACTIONS 1528),
    (anon_sym_mut, ACTIONS 1508), (anon_sym_out, ACTIONS 1508),
    (anon_sym_SLASH_SLASH, ACTIONS 1497), (anon_sym_AT, ACTIONS 1497),
    (anon_sym_DASH, ACTIONS 1530), (anon_sym_PIPE, ACTIONS 1497), (anon_sym_PLUS, ACTIONS 1530),
    (anon_sym_CARET, ACTIONS 1497), (anon_sym_not, ACTIONS 1533), (anon_sym_and, ACTIONS 1497),
    (anon_sym_or, ACTIONS 1497), (anon_sym_SLASH, ACTIONS 1497),
    (anon_sym_PERCENT, ACTIONS 1497), (anon_sym_AMP, ACTIONS 1497),
    (anon_sym_LT_LT, ACTIONS 1497), (anon_sym_TILDE, ACTIONS 1536), (anon_sym_is, ACTIONS 1497),
    (anon_sym_LT, ACTIONS 1497), (anon_sym_LT_EQ, ACTIONS 1495), (anon_sym_EQ_EQ, ACTIONS 1495),
    (anon_sym_BANG_EQ, ACTIONS 1495), (anon_sym_GT_EQ, ACTIONS 1495),
    (anon_sym_GT, ACTIONS 1497), (anon_sym_LT_GT, ACTIONS 1495), (anon_sym_lambda, ACTIONS 1538),
    (anon_sym_PLUS_EQ, ACTIONS 1540), (anon_sym_DASH_EQ, ACTIONS 1540),
    (anon_sym_STAR_EQ, ACTIONS 1540), (anon_sym_SLASH_EQ, ACTIONS 1540),
    (anon_sym_AT_EQ, ACTIONS 1540), (anon_sym_SLASH_SLASH_EQ, ACTIONS 1540),
    (anon_sym_PERCENT_EQ, ACTIONS 1540), (anon_sym_STAR_STAR_EQ, ACTIONS 1540),
    (anon_sym_GT_GT_EQ, ACTIONS 1540), (anon_sym_LT_LT_EQ, ACTIONS 1540),
    (anon_sym_AMP_EQ, ACTIONS 1540), (anon_sym_CARET_EQ, ACTIONS 1540),
    (anon_sym_PIPE_EQ, ACTIONS 1540), (sym_ellipsis, ACTIONS 1542),
    (anon_sym___mlir_type, ACTIONS 1544), (sym_integer, ACTIONS 1546), (sym_float, ACTIONS 1542),
    (anon_sym_await, ACTIONS 1548), (sym_true, ACTIONS 1546), (sym_false, ACTIONS 1546),
    (sym_none, ACTIONS 1546), (sym_comment, ACTIONS 3), (sym_line_continuation, ACTIONS 3),
    (sym__newline, ACTIONS 1495), (sym_string_start, ACTIONS 1550)]"

definition parse_table_1219 :: "(nat \<times> nat) list" where "parse_table_1219 = [
    (sym_chevron, STATE 11650), (sym_named_expression, STATE 7969),
    (sym__named_expression_lhs, STATE 12752), (sym_list_splat_pattern, STATE 6966),
    (sym_as_pattern, STATE 7969), (sym_expression, STATE 9747),
    (sym_primary_expression, STATE 7107), (sym_comptime_expression, STATE 7017),
    (sym_transfer_expression, STATE 7017), (sym_not_operator, STATE 7969),
    (sym_boolean_operator, STATE 7969), (sym_binary_operator, STATE 7017),
    (sym_unary_operator, STATE 7017), (sym_comparison_operator, STATE 7969),
    (sym_lambda, STATE 7969), (sym_attribute, STATE 7017), (sym_subscript, STATE 7027),
    (sym_call, STATE 6965), (sym_mlir_type, STATE 7017), (sym_list, STATE 7017),
    (sym_set, STATE 7017), (sym_tuple, STATE 7017), (sym_dictionary, STATE 7017),
    (sym_struct_literal, STATE 7017), (sym_list_comprehension, STATE 7017),
    (sym_dictionary_comprehension, STATE 7017), (sym_set_comprehension, STATE 7017),
    (sym_generator_expression, STATE 7017), (sym_parenthesized_expression, STATE 7017),
    (sym_conditional_expression, STATE 7969), (sym_concatenated_string, STATE 7017),
    (sym_string, STATE 6936), (sym_await, STATE 7017), (sym_identifier, ACTIONS 1567),
    (anon_sym_SEMI, ACTIONS 1495), (anon_sym_DOT, ACTIONS 1497), (anon_sym_LPAREN, ACTIONS 1569),
    (anon_sym_COMMA, ACTIONS 1502), (anon_sym_as, ACTIONS 1497), (anon_sym_STAR, ACTIONS 1572),
    (anon_sym_print, ACTIONS 1575), (anon_sym_GT_GT, ACTIONS 1577),
    (anon_sym_comptime, ACTIONS 1579), (anon_sym_COLON_EQ, ACTIONS 1512),
    (anon_sym_COLON, ACTIONS 1514), (anon_sym_if, ACTIONS 1497), (anon_sym_match, ACTIONS 1581),
    (anon_sym_async, ACTIONS 1575), (anon_sym_in, ACTIONS 1497), (anon_sym_LBRACK, ACTIONS 1583),
    (anon_sym_LBRACE, ACTIONS 61), (anon_sym_STAR_STAR, ACTIONS 1497),
    (anon_sym_exec, ACTIONS 1575), (anon_sym_type, ACTIONS 1581), (anon_sym_EQ, ACTIONS 1528),
    (anon_sym_mut, ACTIONS 1575), (anon_sym_out, ACTIONS 1575),
    (anon_sym_SLASH_SLASH, ACTIONS 1497), (anon_sym_AT, ACTIONS 1497),
    (anon_sym_DASH, ACTIONS 1586), (anon_sym_PIPE, ACTIONS 1497), (anon_sym_PLUS, ACTIONS 1586),
    (anon_sym_where, ACTIONS 1497), (anon_sym_CARET, ACTIONS 1497), (anon_sym_not, ACTIONS 1589),
    (anon_sym_and, ACTIONS 1497), (anon_sym_or, ACTIONS 1497), (anon_sym_SLASH, ACTIONS 1497),
    (anon_sym_PERCENT, ACTIONS 1497), (anon_sym_AMP, ACTIONS 1497),
    (anon_sym_LT_LT, ACTIONS 1497), (anon_sym_TILDE, ACTIONS 79), (anon_sym_is, ACTIONS 1497),
    (anon_sym_LT, ACTIONS 1497), (anon_sym_LT_EQ, ACTIONS 1495), (anon_sym_EQ_EQ, ACTIONS 1495),
    (anon_sym_BANG_EQ, ACTIONS 1495), (anon_sym_GT_EQ, ACTIONS 1495),
    (anon_sym_GT, ACTIONS 1497), (anon_sym_LT_GT, ACTIONS 1495), (anon_sym_lambda, ACTIONS 85),
    (anon_sym_PLUS_EQ, ACTIONS 1540), (anon_sym_DASH_EQ, ACTIONS 1540),
    (anon_sym_STAR_EQ, ACTIONS 1540), (anon_sym_SLASH_EQ, ACTIONS 1540),
    (anon_sym_AT_EQ, ACTIONS 1540), (anon_sym_SLASH_SLASH_EQ, ACTIONS 1540),
    (anon_sym_PERCENT_EQ, ACTIONS 1540), (anon_sym_STAR_STAR_EQ, ACTIONS 1540),
    (anon_sym_GT_GT_EQ, ACTIONS 1540), (anon_sym_LT_LT_EQ, ACTIONS 1540),
    (anon_sym_AMP_EQ, ACTIONS 1540), (anon_sym_CARET_EQ, ACTIONS 1540),
    (anon_sym_PIPE_EQ, ACTIONS 1540), (sym_ellipsis, ACTIONS 89),
    (anon_sym___mlir_type, ACTIONS 91), (sym_integer, ACTIONS 93), (sym_float, ACTIONS 89),
    (anon_sym_await, ACTIONS 1592), (sym_true, ACTIONS 93), (sym_false, ACTIONS 93),
    (sym_none, ACTIONS 93), (sym_comment, ACTIONS 3), (sym_line_continuation, ACTIONS 3),
    (sym__newline, ACTIONS 1495), (sym_string_start, ACTIONS 1594)]"

definition parse_table_1220 :: "(nat \<times> nat) list" where "parse_table_1220 = [
    (sym__simple_statements, STATE 5290), (sym_import_statement, STATE 12239),
    (sym_future_import_statement, STATE 12239), (sym_import_from_statement, STATE 12239),
    (sym_print_statement, STATE 12239), (sym_assert_statement, STATE 12239),
    (sym_comptime_assert_statement, STATE 12239), (sym_expression_statement, STATE 12239),
    (sym_tuple_expression, STATE 12425), (sym_named_expression, STATE 7969),
    (sym__named_expression_lhs, STATE 12752), (sym_return_statement, STATE 12239),
    (sym_delete_statement, STATE 12239), (sym_raise_statement, STATE 12239),
    (sym_pass_statement, STATE 12239), (sym_break_statement, STATE 12239),
    (sym_continue_statement, STATE 12239), (sym_global_statement, STATE 12239),
    (sym_nonlocal_statement, STATE 12239), (sym_exec_statement, STATE 12239),
    (sym_type_alias_statement, STATE 12239), (sym_parameterized_alias_statement, STATE 12239),
    (sym_pattern, STATE 8086), (sym_tuple_pattern, STATE 8101), (sym_list_pattern, STATE 8101),
    (sym_list_splat_pattern, STATE 6819), (sym_as_pattern, STATE 7969),
    (sym_expression, STATE 9883), (sym_primary_expression, STATE 7326),
    (sym_comptime_expression, STATE 7017), (sym_transfer_expression, STATE 7017),
    (sym_not_operator, STATE 7969), (sym_boolean_operator, STATE 7969),
    (sym_binary_operator, STATE 7017), (sym_unary_operator, STATE 7017),
    (sym_comparison_operator, STATE 7969), (sym_lambda, STATE 7969),
    (sym_assignment, STATE 12425), (sym_augmented_assignment, STATE 12425),
    (sym_pattern_list, STATE 8578), (sym_yield, STATE 12425), (sym_attribute, STATE 6836),
    (sym_subscript, STATE 6838), (sym_call, STATE 6845), (sym_mlir_type, STATE 7017),
    (sym_list, STATE 7017), (sym_set, STATE 7017), (sym_tuple, STATE 7017),
    (sym_dictionary, STATE 7017), (sym_struct_literal, STATE 7017),
    (sym_list_comprehension, STATE 7017), (sym_dictionary_comprehension, STATE 7017),
    (sym_set_comprehension, STATE 7017), (sym_generator_expression, STATE 7017),
    (sym_parenthesized_expression, STATE 7017), (sym_conditional_expression, STATE 7969),
    (sym_concatenated_string, STATE 7017), (sym_string, STATE 6751), (sym_await, STATE 7017),
    (sym_identifier, ACTIONS 9), (anon_sym_import, ACTIONS 11), (anon_sym_from, ACTIONS 13),
    (anon_sym_LPAREN, ACTIONS 15), (anon_sym_STAR, ACTIONS 17), (anon_sym_print, ACTIONS 19),
    (anon_sym_comptime, ACTIONS 335), (anon_sym_assert, ACTIONS 23),
    (anon_sym___comptime_assert, ACTIONS 25), (anon_sym_return, ACTIONS 27),
    (anon_sym_del, ACTIONS 29), (anon_sym_raise, ACTIONS 31), (anon_sym_pass, ACTIONS 33),
    (anon_sym_break, ACTIONS 35), (anon_sym_continue, ACTIONS 37),
    (anon_sym_match, ACTIONS 1596), (anon_sym_async, ACTIONS 73), (anon_sym_LBRACK, ACTIONS 59),
    (anon_sym_LBRACE, ACTIONS 61), (anon_sym_global, ACTIONS 63),
    (anon_sym_nonlocal, ACTIONS 65), (anon_sym_exec, ACTIONS 67), (anon_sym_type, ACTIONS 69),
    (anon_sym_mut, ACTIONS 73), (anon_sym_out, ACTIONS 73), (anon_sym_DASH, ACTIONS 79),
    (anon_sym_PLUS, ACTIONS 79), (anon_sym_ref, ACTIONS 81), (anon_sym_var, ACTIONS 81),
    (anon_sym_not, ACTIONS 83), (anon_sym_TILDE, ACTIONS 79), (anon_sym_lambda, ACTIONS 85),
    (anon_sym_yield, ACTIONS 87), (sym_ellipsis, ACTIONS 89), (anon_sym___mlir_type, ACTIONS 91),
    (sym_integer, ACTIONS 93), (sym_float, ACTIONS 89), (anon_sym_await, ACTIONS 95),
    (sym_true, ACTIONS 93), (sym_false, ACTIONS 93), (sym_none, ACTIONS 93),
    (sym_comment, ACTIONS 3), (sym_line_continuation, ACTIONS 3), (sym__newline, ACTIONS 1598),
    (sym__indent, ACTIONS 1600), (sym_string_start, ACTIONS 97)]"

definition parse_table_1221 :: "(nat \<times> nat) list" where "parse_table_1221 = [
    (sym_chevron, STATE 11650), (sym_named_expression, STATE 7969),
    (sym__named_expression_lhs, STATE 12752), (sym_list_splat_pattern, STATE 6966),
    (sym_as_pattern, STATE 7969), (sym_expression, STATE 9747),
    (sym_primary_expression, STATE 7107), (sym_comptime_expression, STATE 7017),
    (sym_transfer_expression, STATE 7017), (sym_not_operator, STATE 7969),
    (sym_boolean_operator, STATE 7969), (sym_binary_operator, STATE 7017),
    (sym_unary_operator, STATE 7017), (sym_comparison_operator, STATE 7969),
    (sym_lambda, STATE 7969), (sym_attribute, STATE 7017), (sym_subscript, STATE 7027),
    (sym_call, STATE 6965), (sym_mlir_type, STATE 7017), (sym_list, STATE 7017),
    (sym_set, STATE 7017), (sym_tuple, STATE 7017), (sym_dictionary, STATE 7017),
    (sym_struct_literal, STATE 7017), (sym_list_comprehension, STATE 7017),
    (sym_dictionary_comprehension, STATE 7017), (sym_set_comprehension, STATE 7017),
    (sym_generator_expression, STATE 7017), (sym_parenthesized_expression, STATE 7017),
    (sym_conditional_expression, STATE 7969), (sym_concatenated_string, STATE 7017),
    (sym_string, STATE 6936), (sym_await, STATE 7017), (sym_identifier, ACTIONS 1567),
    (anon_sym_SEMI, ACTIONS 1495), (anon_sym_DOT, ACTIONS 1497), (anon_sym_LPAREN, ACTIONS 1569),
    (anon_sym_COMMA, ACTIONS 1502), (anon_sym_as, ACTIONS 1497), (anon_sym_STAR, ACTIONS 1572),
    (anon_sym_print, ACTIONS 1575), (anon_sym_GT_GT, ACTIONS 1577),
    (anon_sym_comptime, ACTIONS 1579), (anon_sym_COLON_EQ, ACTIONS 1512),
    (anon_sym_COLON, ACTIONS 1528), (anon_sym_if, ACTIONS 1497), (anon_sym_match, ACTIONS 1581),
    (anon_sym_async, ACTIONS 1575), (anon_sym_in, ACTIONS 1497), (anon_sym_LBRACK, ACTIONS 1583),
    (anon_sym_LBRACE, ACTIONS 61), (anon_sym_STAR_STAR, ACTIONS 1497),
    (anon_sym_exec, ACTIONS 1575), (anon_sym_type, ACTIONS 1581), (anon_sym_EQ, ACTIONS 1528),
    (anon_sym_mut, ACTIONS 1575), (anon_sym_out, ACTIONS 1575),
    (anon_sym_SLASH_SLASH, ACTIONS 1497), (anon_sym_AT, ACTIONS 1497),
    (anon_sym_DASH, ACTIONS 1586), (anon_sym_PIPE, ACTIONS 1497), (anon_sym_PLUS, ACTIONS 1586),
    (anon_sym_CARET, ACTIONS 1497), (anon_sym_not, ACTIONS 1589), (anon_sym_and, ACTIONS 1497),
    (anon_sym_or, ACTIONS 1497), (anon_sym_SLASH, ACTIONS 1497),
    (anon_sym_PERCENT, ACTIONS 1497), (anon_sym_AMP, ACTIONS 1497),
    (anon_sym_LT_LT, ACTIONS 1497), (anon_sym_TILDE, ACTIONS 79), (anon_sym_is, ACTIONS 1497),
    (anon_sym_LT, ACTIONS 1497), (anon_sym_LT_EQ, ACTIONS 1495), (anon_sym_EQ_EQ, ACTIONS 1495),
    (anon_sym_BANG_EQ, ACTIONS 1495), (anon_sym_GT_EQ, ACTIONS 1495),
    (anon_sym_GT, ACTIONS 1497), (anon_sym_LT_GT, ACTIONS 1495), (anon_sym_lambda, ACTIONS 85),
    (anon_sym_PLUS_EQ, ACTIONS 1540), (anon_sym_DASH_EQ, ACTIONS 1540),
    (anon_sym_STAR_EQ, ACTIONS 1540), (anon_sym_SLASH_EQ, ACTIONS 1540),
    (anon_sym_AT_EQ, ACTIONS 1540), (anon_sym_SLASH_SLASH_EQ, ACTIONS 1540),
    (anon_sym_PERCENT_EQ, ACTIONS 1540), (anon_sym_STAR_STAR_EQ, ACTIONS 1540),
    (anon_sym_GT_GT_EQ, ACTIONS 1540), (anon_sym_LT_LT_EQ, ACTIONS 1540),
    (anon_sym_AMP_EQ, ACTIONS 1540), (anon_sym_CARET_EQ, ACTIONS 1540),
    (anon_sym_PIPE_EQ, ACTIONS 1540), (sym_ellipsis, ACTIONS 89),
    (anon_sym___mlir_type, ACTIONS 91), (sym_integer, ACTIONS 93), (sym_float, ACTIONS 89),
    (anon_sym_await, ACTIONS 1592), (sym_true, ACTIONS 93), (sym_false, ACTIONS 93),
    (sym_none, ACTIONS 93), (sym_comment, ACTIONS 3), (sym_line_continuation, ACTIONS 3),
    (sym__newline, ACTIONS 1495), (sym_string_start, ACTIONS 1594)]"

definition parse_table_1222 :: "(nat \<times> nat) list" where "parse_table_1222 = [
    (sym__simple_statements, STATE 4450), (sym_import_statement, STATE 11814),
    (sym_future_import_statement, STATE 11814), (sym_import_from_statement, STATE 11814),
    (sym_print_statement, STATE 11814), (sym_assert_statement, STATE 11814),
    (sym_comptime_assert_statement, STATE 11814), (sym_expression_statement, STATE 11814),
    (sym_tuple_expression, STATE 12425), (sym_named_expression, STATE 7969),
    (sym__named_expression_lhs, STATE 12752), (sym_return_statement, STATE 11814),
    (sym_delete_statement, STATE 11814), (sym_raise_statement, STATE 11814),
    (sym_pass_statement, STATE 11814), (sym_break_statement, STATE 11814),
    (sym_continue_statement, STATE 11814), (sym_global_statement, STATE 11814),
    (sym_nonlocal_statement, STATE 11814), (sym_exec_statement, STATE 11814),
    (sym_type_alias_statement, STATE 11814), (sym_parameterized_alias_statement, STATE 11814),
    (sym_pattern, STATE 8086), (sym_tuple_pattern, STATE 8101), (sym_list_pattern, STATE 8101),
    (sym_list_splat_pattern, STATE 6819), (sym_as_pattern, STATE 7969),
    (sym_expression, STATE 9883), (sym_primary_expression, STATE 7326),
    (sym_comptime_expression, STATE 7017), (sym_transfer_expression, STATE 7017),
    (sym_not_operator, STATE 7969), (sym_boolean_operator, STATE 7969),
    (sym_binary_operator, STATE 7017), (sym_unary_operator, STATE 7017),
    (sym_comparison_operator, STATE 7969), (sym_lambda, STATE 7969),
    (sym_assignment, STATE 12425), (sym_augmented_assignment, STATE 12425),
    (sym_pattern_list, STATE 8578), (sym_yield, STATE 12425), (sym_attribute, STATE 6836),
    (sym_subscript, STATE 6838), (sym_call, STATE 6845), (sym_mlir_type, STATE 7017),
    (sym_list, STATE 7017), (sym_set, STATE 7017), (sym_tuple, STATE 7017),
    (sym_dictionary, STATE 7017), (sym_struct_literal, STATE 7017),
    (sym_list_comprehension, STATE 7017), (sym_dictionary_comprehension, STATE 7017),
    (sym_set_comprehension, STATE 7017), (sym_generator_expression, STATE 7017),
    (sym_parenthesized_expression, STATE 7017), (sym_conditional_expression, STATE 7969),
    (sym_concatenated_string, STATE 7017), (sym_string, STATE 6751), (sym_await, STATE 7017),
    (sym_identifier, ACTIONS 9), (anon_sym_import, ACTIONS 11), (anon_sym_from, ACTIONS 13),
    (anon_sym_LPAREN, ACTIONS 15), (anon_sym_STAR, ACTIONS 17), (anon_sym_print, ACTIONS 19),
    (anon_sym_comptime, ACTIONS 335), (anon_sym_assert, ACTIONS 23),
    (anon_sym___comptime_assert, ACTIONS 25), (anon_sym_return, ACTIONS 27),
    (anon_sym_del, ACTIONS 29), (anon_sym_raise, ACTIONS 31), (anon_sym_pass, ACTIONS 33),
    (anon_sym_break, ACTIONS 35), (anon_sym_continue, ACTIONS 37),
    (anon_sym_match, ACTIONS 1596), (anon_sym_async, ACTIONS 73), (anon_sym_LBRACK, ACTIONS 59),
    (anon_sym_LBRACE, ACTIONS 61), (anon_sym_global, ACTIONS 63),
    (anon_sym_nonlocal, ACTIONS 65), (anon_sym_exec, ACTIONS 67), (anon_sym_type, ACTIONS 69),
    (anon_sym_mut, ACTIONS 73), (anon_sym_out, ACTIONS 73), (anon_sym_DASH, ACTIONS 79),
    (anon_sym_PLUS, ACTIONS 79), (anon_sym_ref, ACTIONS 81), (anon_sym_var, ACTIONS 81),
    (anon_sym_not, ACTIONS 83), (anon_sym_TILDE, ACTIONS 79), (anon_sym_lambda, ACTIONS 85),
    (anon_sym_yield, ACTIONS 87), (sym_ellipsis, ACTIONS 89), (anon_sym___mlir_type, ACTIONS 91),
    (sym_integer, ACTIONS 93), (sym_float, ACTIONS 89), (anon_sym_await, ACTIONS 95),
    (sym_true, ACTIONS 93), (sym_false, ACTIONS 93), (sym_none, ACTIONS 93),
    (sym_comment, ACTIONS 3), (sym_line_continuation, ACTIONS 3), (sym__newline, ACTIONS 1602),
    (sym__indent, ACTIONS 1604), (sym_string_start, ACTIONS 97)]"

definition parse_table_1223 :: "(nat \<times> nat) list" where "parse_table_1223 = [
    (sym__simple_statements, STATE 3945), (sym_import_statement, STATE 11814),
    (sym_future_import_statement, STATE 11814), (sym_import_from_statement, STATE 11814),
    (sym_print_statement, STATE 11814), (sym_assert_statement, STATE 11814),
    (sym_comptime_assert_statement, STATE 11814), (sym_expression_statement, STATE 11814),
    (sym_tuple_expression, STATE 12425), (sym_named_expression, STATE 7969),
    (sym__named_expression_lhs, STATE 12752), (sym_return_statement, STATE 11814),
    (sym_delete_statement, STATE 11814), (sym_raise_statement, STATE 11814),
    (sym_pass_statement, STATE 11814), (sym_break_statement, STATE 11814),
    (sym_continue_statement, STATE 11814), (sym_global_statement, STATE 11814),
    (sym_nonlocal_statement, STATE 11814), (sym_exec_statement, STATE 11814),
    (sym_type_alias_statement, STATE 11814), (sym_parameterized_alias_statement, STATE 11814),
    (sym_pattern, STATE 8086), (sym_tuple_pattern, STATE 8101), (sym_list_pattern, STATE 8101),
    (sym_list_splat_pattern, STATE 6819), (sym_as_pattern, STATE 7969),
    (sym_expression, STATE 9883), (sym_primary_expression, STATE 7326),
    (sym_comptime_expression, STATE 7017), (sym_transfer_expression, STATE 7017),
    (sym_not_operator, STATE 7969), (sym_boolean_operator, STATE 7969),
    (sym_binary_operator, STATE 7017), (sym_unary_operator, STATE 7017),
    (sym_comparison_operator, STATE 7969), (sym_lambda, STATE 7969),
    (sym_assignment, STATE 12425), (sym_augmented_assignment, STATE 12425),
    (sym_pattern_list, STATE 8578), (sym_yield, STATE 12425), (sym_attribute, STATE 6836),
    (sym_subscript, STATE 6838), (sym_call, STATE 6845), (sym_mlir_type, STATE 7017),
    (sym_list, STATE 7017), (sym_set, STATE 7017), (sym_tuple, STATE 7017),
    (sym_dictionary, STATE 7017), (sym_struct_literal, STATE 7017),
    (sym_list_comprehension, STATE 7017), (sym_dictionary_comprehension, STATE 7017),
    (sym_set_comprehension, STATE 7017), (sym_generator_expression, STATE 7017),
    (sym_parenthesized_expression, STATE 7017), (sym_conditional_expression, STATE 7969),
    (sym_concatenated_string, STATE 7017), (sym_string, STATE 6751), (sym_await, STATE 7017),
    (sym_identifier, ACTIONS 9), (anon_sym_import, ACTIONS 11), (anon_sym_from, ACTIONS 13),
    (anon_sym_LPAREN, ACTIONS 15), (anon_sym_STAR, ACTIONS 17), (anon_sym_print, ACTIONS 19),
    (anon_sym_comptime, ACTIONS 335), (anon_sym_assert, ACTIONS 23),
    (anon_sym___comptime_assert, ACTIONS 25), (anon_sym_return, ACTIONS 27),
    (anon_sym_del, ACTIONS 29), (anon_sym_raise, ACTIONS 31), (anon_sym_pass, ACTIONS 33),
    (anon_sym_break, ACTIONS 35), (anon_sym_continue, ACTIONS 37),
    (anon_sym_match, ACTIONS 1596), (anon_sym_async, ACTIONS 73), (anon_sym_LBRACK, ACTIONS 59),
    (anon_sym_LBRACE, ACTIONS 61), (anon_sym_global, ACTIONS 63),
    (anon_sym_nonlocal, ACTIONS 65), (anon_sym_exec, ACTIONS 67), (anon_sym_type, ACTIONS 69),
    (anon_sym_mut, ACTIONS 73), (anon_sym_out, ACTIONS 73), (anon_sym_DASH, ACTIONS 79),
    (anon_sym_PLUS, ACTIONS 79), (anon_sym_ref, ACTIONS 81), (anon_sym_var, ACTIONS 81),
    (anon_sym_not, ACTIONS 83), (anon_sym_TILDE, ACTIONS 79), (anon_sym_lambda, ACTIONS 85),
    (anon_sym_yield, ACTIONS 87), (sym_ellipsis, ACTIONS 89), (anon_sym___mlir_type, ACTIONS 91),
    (sym_integer, ACTIONS 93), (sym_float, ACTIONS 89), (anon_sym_await, ACTIONS 95),
    (sym_true, ACTIONS 93), (sym_false, ACTIONS 93), (sym_none, ACTIONS 93),
    (sym_comment, ACTIONS 3), (sym_line_continuation, ACTIONS 3), (sym__newline, ACTIONS 1606),
    (sym__indent, ACTIONS 1608), (sym_string_start, ACTIONS 97)]"

definition parse_table_1224 :: "(nat \<times> nat) list" where "parse_table_1224 = [
    (sym__simple_statements, STATE 4295), (sym_import_statement, STATE 11814),
    (sym_future_import_statement, STATE 11814), (sym_import_from_statement, STATE 11814),
    (sym_print_statement, STATE 11814), (sym_assert_statement, STATE 11814),
    (sym_comptime_assert_statement, STATE 11814), (sym_expression_statement, STATE 11814),
    (sym_tuple_expression, STATE 12425), (sym_named_expression, STATE 7969),
    (sym__named_expression_lhs, STATE 12752), (sym_return_statement, STATE 11814),
    (sym_delete_statement, STATE 11814), (sym_raise_statement, STATE 11814),
    (sym_pass_statement, STATE 11814), (sym_break_statement, STATE 11814),
    (sym_continue_statement, STATE 11814), (sym_global_statement, STATE 11814),
    (sym_nonlocal_statement, STATE 11814), (sym_exec_statement, STATE 11814),
    (sym_type_alias_statement, STATE 11814), (sym_parameterized_alias_statement, STATE 11814),
    (sym_pattern, STATE 8086), (sym_tuple_pattern, STATE 8101), (sym_list_pattern, STATE 8101),
    (sym_list_splat_pattern, STATE 6819), (sym_as_pattern, STATE 7969),
    (sym_expression, STATE 9883), (sym_primary_expression, STATE 7326),
    (sym_comptime_expression, STATE 7017), (sym_transfer_expression, STATE 7017),
    (sym_not_operator, STATE 7969), (sym_boolean_operator, STATE 7969),
    (sym_binary_operator, STATE 7017), (sym_unary_operator, STATE 7017),
    (sym_comparison_operator, STATE 7969), (sym_lambda, STATE 7969),
    (sym_assignment, STATE 12425), (sym_augmented_assignment, STATE 12425),
    (sym_pattern_list, STATE 8578), (sym_yield, STATE 12425), (sym_attribute, STATE 6836),
    (sym_subscript, STATE 6838), (sym_call, STATE 6845), (sym_mlir_type, STATE 7017),
    (sym_list, STATE 7017), (sym_set, STATE 7017), (sym_tuple, STATE 7017),
    (sym_dictionary, STATE 7017), (sym_struct_literal, STATE 7017),
    (sym_list_comprehension, STATE 7017), (sym_dictionary_comprehension, STATE 7017),
    (sym_set_comprehension, STATE 7017), (sym_generator_expression, STATE 7017),
    (sym_parenthesized_expression, STATE 7017), (sym_conditional_expression, STATE 7969),
    (sym_concatenated_string, STATE 7017), (sym_string, STATE 6751), (sym_await, STATE 7017),
    (sym_identifier, ACTIONS 9), (anon_sym_import, ACTIONS 11), (anon_sym_from, ACTIONS 13),
    (anon_sym_LPAREN, ACTIONS 15), (anon_sym_STAR, ACTIONS 17), (anon_sym_print, ACTIONS 19),
    (anon_sym_comptime, ACTIONS 335), (anon_sym_assert, ACTIONS 23),
    (anon_sym___comptime_assert, ACTIONS 25), (anon_sym_return, ACTIONS 27),
    (anon_sym_del, ACTIONS 29), (anon_sym_raise, ACTIONS 31), (anon_sym_pass, ACTIONS 33),
    (anon_sym_break, ACTIONS 35), (anon_sym_continue, ACTIONS 37),
    (anon_sym_match, ACTIONS 1596), (anon_sym_async, ACTIONS 73), (anon_sym_LBRACK, ACTIONS 59),
    (anon_sym_LBRACE, ACTIONS 61), (anon_sym_global, ACTIONS 63),
    (anon_sym_nonlocal, ACTIONS 65), (anon_sym_exec, ACTIONS 67), (anon_sym_type, ACTIONS 69),
    (anon_sym_mut, ACTIONS 73), (anon_sym_out, ACTIONS 73), (anon_sym_DASH, ACTIONS 79),
    (anon_sym_PLUS, ACTIONS 79), (anon_sym_ref, ACTIONS 81), (anon_sym_var, ACTIONS 81),
    (anon_sym_not, ACTIONS 83), (anon_sym_TILDE, ACTIONS 79), (anon_sym_lambda, ACTIONS 85),
    (anon_sym_yield, ACTIONS 87), (sym_ellipsis, ACTIONS 89), (anon_sym___mlir_type, ACTIONS 91),
    (sym_integer, ACTIONS 93), (sym_float, ACTIONS 89), (anon_sym_await, ACTIONS 95),
    (sym_true, ACTIONS 93), (sym_false, ACTIONS 93), (sym_none, ACTIONS 93),
    (sym_comment, ACTIONS 3), (sym_line_continuation, ACTIONS 3), (sym__newline, ACTIONS 1610),
    (sym__indent, ACTIONS 1612), (sym_string_start, ACTIONS 97)]"

definition parse_table_1225 :: "(nat \<times> nat) list" where "parse_table_1225 = [
    (sym__simple_statements, STATE 4460), (sym_import_statement, STATE 11814),
    (sym_future_import_statement, STATE 11814), (sym_import_from_statement, STATE 11814),
    (sym_print_statement, STATE 11814), (sym_assert_statement, STATE 11814),
    (sym_comptime_assert_statement, STATE 11814), (sym_expression_statement, STATE 11814),
    (sym_tuple_expression, STATE 12425), (sym_named_expression, STATE 7969),
    (sym__named_expression_lhs, STATE 12752), (sym_return_statement, STATE 11814),
    (sym_delete_statement, STATE 11814), (sym_raise_statement, STATE 11814),
    (sym_pass_statement, STATE 11814), (sym_break_statement, STATE 11814),
    (sym_continue_statement, STATE 11814), (sym_global_statement, STATE 11814),
    (sym_nonlocal_statement, STATE 11814), (sym_exec_statement, STATE 11814),
    (sym_type_alias_statement, STATE 11814), (sym_parameterized_alias_statement, STATE 11814),
    (sym_pattern, STATE 8086), (sym_tuple_pattern, STATE 8101), (sym_list_pattern, STATE 8101),
    (sym_list_splat_pattern, STATE 6819), (sym_as_pattern, STATE 7969),
    (sym_expression, STATE 9883), (sym_primary_expression, STATE 7326),
    (sym_comptime_expression, STATE 7017), (sym_transfer_expression, STATE 7017),
    (sym_not_operator, STATE 7969), (sym_boolean_operator, STATE 7969),
    (sym_binary_operator, STATE 7017), (sym_unary_operator, STATE 7017),
    (sym_comparison_operator, STATE 7969), (sym_lambda, STATE 7969),
    (sym_assignment, STATE 12425), (sym_augmented_assignment, STATE 12425),
    (sym_pattern_list, STATE 8578), (sym_yield, STATE 12425), (sym_attribute, STATE 6836),
    (sym_subscript, STATE 6838), (sym_call, STATE 6845), (sym_mlir_type, STATE 7017),
    (sym_list, STATE 7017), (sym_set, STATE 7017), (sym_tuple, STATE 7017),
    (sym_dictionary, STATE 7017), (sym_struct_literal, STATE 7017),
    (sym_list_comprehension, STATE 7017), (sym_dictionary_comprehension, STATE 7017),
    (sym_set_comprehension, STATE 7017), (sym_generator_expression, STATE 7017),
    (sym_parenthesized_expression, STATE 7017), (sym_conditional_expression, STATE 7969),
    (sym_concatenated_string, STATE 7017), (sym_string, STATE 6751), (sym_await, STATE 7017),
    (sym_identifier, ACTIONS 9), (anon_sym_import, ACTIONS 11), (anon_sym_from, ACTIONS 13),
    (anon_sym_LPAREN, ACTIONS 15), (anon_sym_STAR, ACTIONS 17), (anon_sym_print, ACTIONS 19),
    (anon_sym_comptime, ACTIONS 335), (anon_sym_assert, ACTIONS 23),
    (anon_sym___comptime_assert, ACTIONS 25), (anon_sym_return, ACTIONS 27),
    (anon_sym_del, ACTIONS 29), (anon_sym_raise, ACTIONS 31), (anon_sym_pass, ACTIONS 33),
    (anon_sym_break, ACTIONS 35), (anon_sym_continue, ACTIONS 37),
    (anon_sym_match, ACTIONS 1596), (anon_sym_async, ACTIONS 73), (anon_sym_LBRACK, ACTIONS 59),
    (anon_sym_LBRACE, ACTIONS 61), (anon_sym_global, ACTIONS 63),
    (anon_sym_nonlocal, ACTIONS 65), (anon_sym_exec, ACTIONS 67), (anon_sym_type, ACTIONS 69),
    (anon_sym_mut, ACTIONS 73), (anon_sym_out, ACTIONS 73), (anon_sym_DASH, ACTIONS 79),
    (anon_sym_PLUS, ACTIONS 79), (anon_sym_ref, ACTIONS 81), (anon_sym_var, ACTIONS 81),
    (anon_sym_not, ACTIONS 83), (anon_sym_TILDE, ACTIONS 79), (anon_sym_lambda, ACTIONS 85),
    (anon_sym_yield, ACTIONS 87), (sym_ellipsis, ACTIONS 89), (anon_sym___mlir_type, ACTIONS 91),
    (sym_integer, ACTIONS 93), (sym_float, ACTIONS 89), (anon_sym_await, ACTIONS 95),
    (sym_true, ACTIONS 93), (sym_false, ACTIONS 93), (sym_none, ACTIONS 93),
    (sym_comment, ACTIONS 3), (sym_line_continuation, ACTIONS 3), (sym__newline, ACTIONS 1614),
    (sym__indent, ACTIONS 1616), (sym_string_start, ACTIONS 97)]"

definition parse_table_1226 :: "(nat \<times> nat) list" where "parse_table_1226 = [
    (sym__simple_statements, STATE 4462), (sym_import_statement, STATE 11814),
    (sym_future_import_statement, STATE 11814), (sym_import_from_statement, STATE 11814),
    (sym_print_statement, STATE 11814), (sym_assert_statement, STATE 11814),
    (sym_comptime_assert_statement, STATE 11814), (sym_expression_statement, STATE 11814),
    (sym_tuple_expression, STATE 12425), (sym_named_expression, STATE 7969),
    (sym__named_expression_lhs, STATE 12752), (sym_return_statement, STATE 11814),
    (sym_delete_statement, STATE 11814), (sym_raise_statement, STATE 11814),
    (sym_pass_statement, STATE 11814), (sym_break_statement, STATE 11814),
    (sym_continue_statement, STATE 11814), (sym_global_statement, STATE 11814),
    (sym_nonlocal_statement, STATE 11814), (sym_exec_statement, STATE 11814),
    (sym_type_alias_statement, STATE 11814), (sym_parameterized_alias_statement, STATE 11814),
    (sym_pattern, STATE 8086), (sym_tuple_pattern, STATE 8101), (sym_list_pattern, STATE 8101),
    (sym_list_splat_pattern, STATE 6819), (sym_as_pattern, STATE 7969),
    (sym_expression, STATE 9883), (sym_primary_expression, STATE 7326),
    (sym_comptime_expression, STATE 7017), (sym_transfer_expression, STATE 7017),
    (sym_not_operator, STATE 7969), (sym_boolean_operator, STATE 7969),
    (sym_binary_operator, STATE 7017), (sym_unary_operator, STATE 7017),
    (sym_comparison_operator, STATE 7969), (sym_lambda, STATE 7969),
    (sym_assignment, STATE 12425), (sym_augmented_assignment, STATE 12425),
    (sym_pattern_list, STATE 8578), (sym_yield, STATE 12425), (sym_attribute, STATE 6836),
    (sym_subscript, STATE 6838), (sym_call, STATE 6845), (sym_mlir_type, STATE 7017),
    (sym_list, STATE 7017), (sym_set, STATE 7017), (sym_tuple, STATE 7017),
    (sym_dictionary, STATE 7017), (sym_struct_literal, STATE 7017),
    (sym_list_comprehension, STATE 7017), (sym_dictionary_comprehension, STATE 7017),
    (sym_set_comprehension, STATE 7017), (sym_generator_expression, STATE 7017),
    (sym_parenthesized_expression, STATE 7017), (sym_conditional_expression, STATE 7969),
    (sym_concatenated_string, STATE 7017), (sym_string, STATE 6751), (sym_await, STATE 7017),
    (sym_identifier, ACTIONS 9), (anon_sym_import, ACTIONS 11), (anon_sym_from, ACTIONS 13),
    (anon_sym_LPAREN, ACTIONS 15), (anon_sym_STAR, ACTIONS 17), (anon_sym_print, ACTIONS 19),
    (anon_sym_comptime, ACTIONS 335), (anon_sym_assert, ACTIONS 23),
    (anon_sym___comptime_assert, ACTIONS 25), (anon_sym_return, ACTIONS 27),
    (anon_sym_del, ACTIONS 29), (anon_sym_raise, ACTIONS 31), (anon_sym_pass, ACTIONS 33),
    (anon_sym_break, ACTIONS 35), (anon_sym_continue, ACTIONS 37),
    (anon_sym_match, ACTIONS 1596), (anon_sym_async, ACTIONS 73), (anon_sym_LBRACK, ACTIONS 59),
    (anon_sym_LBRACE, ACTIONS 61), (anon_sym_global, ACTIONS 63),
    (anon_sym_nonlocal, ACTIONS 65), (anon_sym_exec, ACTIONS 67), (anon_sym_type, ACTIONS 69),
    (anon_sym_mut, ACTIONS 73), (anon_sym_out, ACTIONS 73), (anon_sym_DASH, ACTIONS 79),
    (anon_sym_PLUS, ACTIONS 79), (anon_sym_ref, ACTIONS 81), (anon_sym_var, ACTIONS 81),
    (anon_sym_not, ACTIONS 83), (anon_sym_TILDE, ACTIONS 79), (anon_sym_lambda, ACTIONS 85),
    (anon_sym_yield, ACTIONS 87), (sym_ellipsis, ACTIONS 89), (anon_sym___mlir_type, ACTIONS 91),
    (sym_integer, ACTIONS 93), (sym_float, ACTIONS 89), (anon_sym_await, ACTIONS 95),
    (sym_true, ACTIONS 93), (sym_false, ACTIONS 93), (sym_none, ACTIONS 93),
    (sym_comment, ACTIONS 3), (sym_line_continuation, ACTIONS 3), (sym__newline, ACTIONS 1618),
    (sym__indent, ACTIONS 1620), (sym_string_start, ACTIONS 97)]"

definition parse_table_1227 :: "(nat \<times> nat) list" where "parse_table_1227 = [
    (sym__simple_statements, STATE 4470), (sym_import_statement, STATE 11814),
    (sym_future_import_statement, STATE 11814), (sym_import_from_statement, STATE 11814),
    (sym_print_statement, STATE 11814), (sym_assert_statement, STATE 11814),
    (sym_comptime_assert_statement, STATE 11814), (sym_expression_statement, STATE 11814),
    (sym_tuple_expression, STATE 12425), (sym_named_expression, STATE 7969),
    (sym__named_expression_lhs, STATE 12752), (sym_return_statement, STATE 11814),
    (sym_delete_statement, STATE 11814), (sym_raise_statement, STATE 11814),
    (sym_pass_statement, STATE 11814), (sym_break_statement, STATE 11814),
    (sym_continue_statement, STATE 11814), (sym_global_statement, STATE 11814),
    (sym_nonlocal_statement, STATE 11814), (sym_exec_statement, STATE 11814),
    (sym_type_alias_statement, STATE 11814), (sym_parameterized_alias_statement, STATE 11814),
    (sym_pattern, STATE 8086), (sym_tuple_pattern, STATE 8101), (sym_list_pattern, STATE 8101),
    (sym_list_splat_pattern, STATE 6819), (sym_as_pattern, STATE 7969),
    (sym_expression, STATE 9883), (sym_primary_expression, STATE 7326),
    (sym_comptime_expression, STATE 7017), (sym_transfer_expression, STATE 7017),
    (sym_not_operator, STATE 7969), (sym_boolean_operator, STATE 7969),
    (sym_binary_operator, STATE 7017), (sym_unary_operator, STATE 7017),
    (sym_comparison_operator, STATE 7969), (sym_lambda, STATE 7969),
    (sym_assignment, STATE 12425), (sym_augmented_assignment, STATE 12425),
    (sym_pattern_list, STATE 8578), (sym_yield, STATE 12425), (sym_attribute, STATE 6836),
    (sym_subscript, STATE 6838), (sym_call, STATE 6845), (sym_mlir_type, STATE 7017),
    (sym_list, STATE 7017), (sym_set, STATE 7017), (sym_tuple, STATE 7017),
    (sym_dictionary, STATE 7017), (sym_struct_literal, STATE 7017),
    (sym_list_comprehension, STATE 7017), (sym_dictionary_comprehension, STATE 7017),
    (sym_set_comprehension, STATE 7017), (sym_generator_expression, STATE 7017),
    (sym_parenthesized_expression, STATE 7017), (sym_conditional_expression, STATE 7969),
    (sym_concatenated_string, STATE 7017), (sym_string, STATE 6751), (sym_await, STATE 7017),
    (sym_identifier, ACTIONS 9), (anon_sym_import, ACTIONS 11), (anon_sym_from, ACTIONS 13),
    (anon_sym_LPAREN, ACTIONS 15), (anon_sym_STAR, ACTIONS 17), (anon_sym_print, ACTIONS 19),
    (anon_sym_comptime, ACTIONS 335), (anon_sym_assert, ACTIONS 23),
    (anon_sym___comptime_assert, ACTIONS 25), (anon_sym_return, ACTIONS 27),
    (anon_sym_del, ACTIONS 29), (anon_sym_raise, ACTIONS 31), (anon_sym_pass, ACTIONS 33),
    (anon_sym_break, ACTIONS 35), (anon_sym_continue, ACTIONS 37),
    (anon_sym_match, ACTIONS 1596), (anon_sym_async, ACTIONS 73), (anon_sym_LBRACK, ACTIONS 59),
    (anon_sym_LBRACE, ACTIONS 61), (anon_sym_global, ACTIONS 63),
    (anon_sym_nonlocal, ACTIONS 65), (anon_sym_exec, ACTIONS 67), (anon_sym_type, ACTIONS 69),
    (anon_sym_mut, ACTIONS 73), (anon_sym_out, ACTIONS 73), (anon_sym_DASH, ACTIONS 79),
    (anon_sym_PLUS, ACTIONS 79), (anon_sym_ref, ACTIONS 81), (anon_sym_var, ACTIONS 81),
    (anon_sym_not, ACTIONS 83), (anon_sym_TILDE, ACTIONS 79), (anon_sym_lambda, ACTIONS 85),
    (anon_sym_yield, ACTIONS 87), (sym_ellipsis, ACTIONS 89), (anon_sym___mlir_type, ACTIONS 91),
    (sym_integer, ACTIONS 93), (sym_float, ACTIONS 89), (anon_sym_await, ACTIONS 95),
    (sym_true, ACTIONS 93), (sym_false, ACTIONS 93), (sym_none, ACTIONS 93),
    (sym_comment, ACTIONS 3), (sym_line_continuation, ACTIONS 3), (sym__newline, ACTIONS 1622),
    (sym__indent, ACTIONS 1624), (sym_string_start, ACTIONS 97)]"

definition parse_table_1228 :: "(nat \<times> nat) list" where "parse_table_1228 = [
    (sym__simple_statements, STATE 4484), (sym_import_statement, STATE 11814),
    (sym_future_import_statement, STATE 11814), (sym_import_from_statement, STATE 11814),
    (sym_print_statement, STATE 11814), (sym_assert_statement, STATE 11814),
    (sym_comptime_assert_statement, STATE 11814), (sym_expression_statement, STATE 11814),
    (sym_tuple_expression, STATE 12425), (sym_named_expression, STATE 7969),
    (sym__named_expression_lhs, STATE 12752), (sym_return_statement, STATE 11814),
    (sym_delete_statement, STATE 11814), (sym_raise_statement, STATE 11814),
    (sym_pass_statement, STATE 11814), (sym_break_statement, STATE 11814),
    (sym_continue_statement, STATE 11814), (sym_global_statement, STATE 11814),
    (sym_nonlocal_statement, STATE 11814), (sym_exec_statement, STATE 11814),
    (sym_type_alias_statement, STATE 11814), (sym_parameterized_alias_statement, STATE 11814),
    (sym_pattern, STATE 8086), (sym_tuple_pattern, STATE 8101), (sym_list_pattern, STATE 8101),
    (sym_list_splat_pattern, STATE 6819), (sym_as_pattern, STATE 7969),
    (sym_expression, STATE 9883), (sym_primary_expression, STATE 7326),
    (sym_comptime_expression, STATE 7017), (sym_transfer_expression, STATE 7017),
    (sym_not_operator, STATE 7969), (sym_boolean_operator, STATE 7969),
    (sym_binary_operator, STATE 7017), (sym_unary_operator, STATE 7017),
    (sym_comparison_operator, STATE 7969), (sym_lambda, STATE 7969),
    (sym_assignment, STATE 12425), (sym_augmented_assignment, STATE 12425),
    (sym_pattern_list, STATE 8578), (sym_yield, STATE 12425), (sym_attribute, STATE 6836),
    (sym_subscript, STATE 6838), (sym_call, STATE 6845), (sym_mlir_type, STATE 7017),
    (sym_list, STATE 7017), (sym_set, STATE 7017), (sym_tuple, STATE 7017),
    (sym_dictionary, STATE 7017), (sym_struct_literal, STATE 7017),
    (sym_list_comprehension, STATE 7017), (sym_dictionary_comprehension, STATE 7017),
    (sym_set_comprehension, STATE 7017), (sym_generator_expression, STATE 7017),
    (sym_parenthesized_expression, STATE 7017), (sym_conditional_expression, STATE 7969),
    (sym_concatenated_string, STATE 7017), (sym_string, STATE 6751), (sym_await, STATE 7017),
    (sym_identifier, ACTIONS 9), (anon_sym_import, ACTIONS 11), (anon_sym_from, ACTIONS 13),
    (anon_sym_LPAREN, ACTIONS 15), (anon_sym_STAR, ACTIONS 17), (anon_sym_print, ACTIONS 19),
    (anon_sym_comptime, ACTIONS 335), (anon_sym_assert, ACTIONS 23),
    (anon_sym___comptime_assert, ACTIONS 25), (anon_sym_return, ACTIONS 27),
    (anon_sym_del, ACTIONS 29), (anon_sym_raise, ACTIONS 31), (anon_sym_pass, ACTIONS 33),
    (anon_sym_break, ACTIONS 35), (anon_sym_continue, ACTIONS 37),
    (anon_sym_match, ACTIONS 1596), (anon_sym_async, ACTIONS 73), (anon_sym_LBRACK, ACTIONS 59),
    (anon_sym_LBRACE, ACTIONS 61), (anon_sym_global, ACTIONS 63),
    (anon_sym_nonlocal, ACTIONS 65), (anon_sym_exec, ACTIONS 67), (anon_sym_type, ACTIONS 69),
    (anon_sym_mut, ACTIONS 73), (anon_sym_out, ACTIONS 73), (anon_sym_DASH, ACTIONS 79),
    (anon_sym_PLUS, ACTIONS 79), (anon_sym_ref, ACTIONS 81), (anon_sym_var, ACTIONS 81),
    (anon_sym_not, ACTIONS 83), (anon_sym_TILDE, ACTIONS 79), (anon_sym_lambda, ACTIONS 85),
    (anon_sym_yield, ACTIONS 87), (sym_ellipsis, ACTIONS 89), (anon_sym___mlir_type, ACTIONS 91),
    (sym_integer, ACTIONS 93), (sym_float, ACTIONS 89), (anon_sym_await, ACTIONS 95),
    (sym_true, ACTIONS 93), (sym_false, ACTIONS 93), (sym_none, ACTIONS 93),
    (sym_comment, ACTIONS 3), (sym_line_continuation, ACTIONS 3), (sym__newline, ACTIONS 1626),
    (sym__indent, ACTIONS 1628), (sym_string_start, ACTIONS 97)]"

definition parse_table_1229 :: "(nat \<times> nat) list" where "parse_table_1229 = [
    (sym__simple_statements, STATE 5111), (sym_import_statement, STATE 12239),
    (sym_future_import_statement, STATE 12239), (sym_import_from_statement, STATE 12239),
    (sym_print_statement, STATE 12239), (sym_assert_statement, STATE 12239),
    (sym_comptime_assert_statement, STATE 12239), (sym_expression_statement, STATE 12239),
    (sym_tuple_expression, STATE 12425), (sym_named_expression, STATE 7969),
    (sym__named_expression_lhs, STATE 12752), (sym_return_statement, STATE 12239),
    (sym_delete_statement, STATE 12239), (sym_raise_statement, STATE 12239),
    (sym_pass_statement, STATE 12239), (sym_break_statement, STATE 12239),
    (sym_continue_statement, STATE 12239), (sym_global_statement, STATE 12239),
    (sym_nonlocal_statement, STATE 12239), (sym_exec_statement, STATE 12239),
    (sym_type_alias_statement, STATE 12239), (sym_parameterized_alias_statement, STATE 12239),
    (sym_pattern, STATE 8086), (sym_tuple_pattern, STATE 8101), (sym_list_pattern, STATE 8101),
    (sym_list_splat_pattern, STATE 6819), (sym_as_pattern, STATE 7969),
    (sym_expression, STATE 9883), (sym_primary_expression, STATE 7326),
    (sym_comptime_expression, STATE 7017), (sym_transfer_expression, STATE 7017),
    (sym_not_operator, STATE 7969), (sym_boolean_operator, STATE 7969),
    (sym_binary_operator, STATE 7017), (sym_unary_operator, STATE 7017),
    (sym_comparison_operator, STATE 7969), (sym_lambda, STATE 7969),
    (sym_assignment, STATE 12425), (sym_augmented_assignment, STATE 12425),
    (sym_pattern_list, STATE 8578), (sym_yield, STATE 12425), (sym_attribute, STATE 6836),
    (sym_subscript, STATE 6838), (sym_call, STATE 6845), (sym_mlir_type, STATE 7017),
    (sym_list, STATE 7017), (sym_set, STATE 7017), (sym_tuple, STATE 7017),
    (sym_dictionary, STATE 7017), (sym_struct_literal, STATE 7017),
    (sym_list_comprehension, STATE 7017), (sym_dictionary_comprehension, STATE 7017),
    (sym_set_comprehension, STATE 7017), (sym_generator_expression, STATE 7017),
    (sym_parenthesized_expression, STATE 7017), (sym_conditional_expression, STATE 7969),
    (sym_concatenated_string, STATE 7017), (sym_string, STATE 6751), (sym_await, STATE 7017),
    (sym_identifier, ACTIONS 9), (anon_sym_import, ACTIONS 11), (anon_sym_from, ACTIONS 13),
    (anon_sym_LPAREN, ACTIONS 15), (anon_sym_STAR, ACTIONS 17), (anon_sym_print, ACTIONS 19),
    (anon_sym_comptime, ACTIONS 335), (anon_sym_assert, ACTIONS 23),
    (anon_sym___comptime_assert, ACTIONS 25), (anon_sym_return, ACTIONS 27),
    (anon_sym_del, ACTIONS 29), (anon_sym_raise, ACTIONS 31), (anon_sym_pass, ACTIONS 33),
    (anon_sym_break, ACTIONS 35), (anon_sym_continue, ACTIONS 37),
    (anon_sym_match, ACTIONS 1596), (anon_sym_async, ACTIONS 73), (anon_sym_LBRACK, ACTIONS 59),
    (anon_sym_LBRACE, ACTIONS 61), (anon_sym_global, ACTIONS 63),
    (anon_sym_nonlocal, ACTIONS 65), (anon_sym_exec, ACTIONS 67), (anon_sym_type, ACTIONS 69),
    (anon_sym_mut, ACTIONS 73), (anon_sym_out, ACTIONS 73), (anon_sym_DASH, ACTIONS 79),
    (anon_sym_PLUS, ACTIONS 79), (anon_sym_ref, ACTIONS 81), (anon_sym_var, ACTIONS 81),
    (anon_sym_not, ACTIONS 83), (anon_sym_TILDE, ACTIONS 79), (anon_sym_lambda, ACTIONS 85),
    (anon_sym_yield, ACTIONS 87), (sym_ellipsis, ACTIONS 89), (anon_sym___mlir_type, ACTIONS 91),
    (sym_integer, ACTIONS 93), (sym_float, ACTIONS 89), (anon_sym_await, ACTIONS 95),
    (sym_true, ACTIONS 93), (sym_false, ACTIONS 93), (sym_none, ACTIONS 93),
    (sym_comment, ACTIONS 3), (sym_line_continuation, ACTIONS 3), (sym__newline, ACTIONS 1630),
    (sym__indent, ACTIONS 1632), (sym_string_start, ACTIONS 97)]"

definition parse_table_1230 :: "(nat \<times> nat) list" where "parse_table_1230 = [
    (sym__simple_statements, STATE 4503), (sym_import_statement, STATE 11814),
    (sym_future_import_statement, STATE 11814), (sym_import_from_statement, STATE 11814),
    (sym_print_statement, STATE 11814), (sym_assert_statement, STATE 11814),
    (sym_comptime_assert_statement, STATE 11814), (sym_expression_statement, STATE 11814),
    (sym_tuple_expression, STATE 12425), (sym_named_expression, STATE 7969),
    (sym__named_expression_lhs, STATE 12752), (sym_return_statement, STATE 11814),
    (sym_delete_statement, STATE 11814), (sym_raise_statement, STATE 11814),
    (sym_pass_statement, STATE 11814), (sym_break_statement, STATE 11814),
    (sym_continue_statement, STATE 11814), (sym_global_statement, STATE 11814),
    (sym_nonlocal_statement, STATE 11814), (sym_exec_statement, STATE 11814),
    (sym_type_alias_statement, STATE 11814), (sym_parameterized_alias_statement, STATE 11814),
    (sym_pattern, STATE 8086), (sym_tuple_pattern, STATE 8101), (sym_list_pattern, STATE 8101),
    (sym_list_splat_pattern, STATE 6819), (sym_as_pattern, STATE 7969),
    (sym_expression, STATE 9883), (sym_primary_expression, STATE 7326),
    (sym_comptime_expression, STATE 7017), (sym_transfer_expression, STATE 7017),
    (sym_not_operator, STATE 7969), (sym_boolean_operator, STATE 7969),
    (sym_binary_operator, STATE 7017), (sym_unary_operator, STATE 7017),
    (sym_comparison_operator, STATE 7969), (sym_lambda, STATE 7969),
    (sym_assignment, STATE 12425), (sym_augmented_assignment, STATE 12425),
    (sym_pattern_list, STATE 8578), (sym_yield, STATE 12425), (sym_attribute, STATE 6836),
    (sym_subscript, STATE 6838), (sym_call, STATE 6845), (sym_mlir_type, STATE 7017),
    (sym_list, STATE 7017), (sym_set, STATE 7017), (sym_tuple, STATE 7017),
    (sym_dictionary, STATE 7017), (sym_struct_literal, STATE 7017),
    (sym_list_comprehension, STATE 7017), (sym_dictionary_comprehension, STATE 7017),
    (sym_set_comprehension, STATE 7017), (sym_generator_expression, STATE 7017),
    (sym_parenthesized_expression, STATE 7017), (sym_conditional_expression, STATE 7969),
    (sym_concatenated_string, STATE 7017), (sym_string, STATE 6751), (sym_await, STATE 7017),
    (sym_identifier, ACTIONS 9), (anon_sym_import, ACTIONS 11), (anon_sym_from, ACTIONS 13),
    (anon_sym_LPAREN, ACTIONS 15), (anon_sym_STAR, ACTIONS 17), (anon_sym_print, ACTIONS 19),
    (anon_sym_comptime, ACTIONS 335), (anon_sym_assert, ACTIONS 23),
    (anon_sym___comptime_assert, ACTIONS 25), (anon_sym_return, ACTIONS 27),
    (anon_sym_del, ACTIONS 29), (anon_sym_raise, ACTIONS 31), (anon_sym_pass, ACTIONS 33),
    (anon_sym_break, ACTIONS 35), (anon_sym_continue, ACTIONS 37),
    (anon_sym_match, ACTIONS 1596), (anon_sym_async, ACTIONS 73), (anon_sym_LBRACK, ACTIONS 59),
    (anon_sym_LBRACE, ACTIONS 61), (anon_sym_global, ACTIONS 63),
    (anon_sym_nonlocal, ACTIONS 65), (anon_sym_exec, ACTIONS 67), (anon_sym_type, ACTIONS 69),
    (anon_sym_mut, ACTIONS 73), (anon_sym_out, ACTIONS 73), (anon_sym_DASH, ACTIONS 79),
    (anon_sym_PLUS, ACTIONS 79), (anon_sym_ref, ACTIONS 81), (anon_sym_var, ACTIONS 81),
    (anon_sym_not, ACTIONS 83), (anon_sym_TILDE, ACTIONS 79), (anon_sym_lambda, ACTIONS 85),
    (anon_sym_yield, ACTIONS 87), (sym_ellipsis, ACTIONS 89), (anon_sym___mlir_type, ACTIONS 91),
    (sym_integer, ACTIONS 93), (sym_float, ACTIONS 89), (anon_sym_await, ACTIONS 95),
    (sym_true, ACTIONS 93), (sym_false, ACTIONS 93), (sym_none, ACTIONS 93),
    (sym_comment, ACTIONS 3), (sym_line_continuation, ACTIONS 3), (sym__newline, ACTIONS 1634),
    (sym__indent, ACTIONS 1636), (sym_string_start, ACTIONS 97)]"

definition parse_table_1231 :: "(nat \<times> nat) list" where "parse_table_1231 = [
    (sym__simple_statements, STATE 4507), (sym_import_statement, STATE 11814),
    (sym_future_import_statement, STATE 11814), (sym_import_from_statement, STATE 11814),
    (sym_print_statement, STATE 11814), (sym_assert_statement, STATE 11814),
    (sym_comptime_assert_statement, STATE 11814), (sym_expression_statement, STATE 11814),
    (sym_tuple_expression, STATE 12425), (sym_named_expression, STATE 7969),
    (sym__named_expression_lhs, STATE 12752), (sym_return_statement, STATE 11814),
    (sym_delete_statement, STATE 11814), (sym_raise_statement, STATE 11814),
    (sym_pass_statement, STATE 11814), (sym_break_statement, STATE 11814),
    (sym_continue_statement, STATE 11814), (sym_global_statement, STATE 11814),
    (sym_nonlocal_statement, STATE 11814), (sym_exec_statement, STATE 11814),
    (sym_type_alias_statement, STATE 11814), (sym_parameterized_alias_statement, STATE 11814),
    (sym_pattern, STATE 8086), (sym_tuple_pattern, STATE 8101), (sym_list_pattern, STATE 8101),
    (sym_list_splat_pattern, STATE 6819), (sym_as_pattern, STATE 7969),
    (sym_expression, STATE 9883), (sym_primary_expression, STATE 7326),
    (sym_comptime_expression, STATE 7017), (sym_transfer_expression, STATE 7017),
    (sym_not_operator, STATE 7969), (sym_boolean_operator, STATE 7969),
    (sym_binary_operator, STATE 7017), (sym_unary_operator, STATE 7017),
    (sym_comparison_operator, STATE 7969), (sym_lambda, STATE 7969),
    (sym_assignment, STATE 12425), (sym_augmented_assignment, STATE 12425),
    (sym_pattern_list, STATE 8578), (sym_yield, STATE 12425), (sym_attribute, STATE 6836),
    (sym_subscript, STATE 6838), (sym_call, STATE 6845), (sym_mlir_type, STATE 7017),
    (sym_list, STATE 7017), (sym_set, STATE 7017), (sym_tuple, STATE 7017),
    (sym_dictionary, STATE 7017), (sym_struct_literal, STATE 7017),
    (sym_list_comprehension, STATE 7017), (sym_dictionary_comprehension, STATE 7017),
    (sym_set_comprehension, STATE 7017), (sym_generator_expression, STATE 7017),
    (sym_parenthesized_expression, STATE 7017), (sym_conditional_expression, STATE 7969),
    (sym_concatenated_string, STATE 7017), (sym_string, STATE 6751), (sym_await, STATE 7017),
    (sym_identifier, ACTIONS 9), (anon_sym_import, ACTIONS 11), (anon_sym_from, ACTIONS 13),
    (anon_sym_LPAREN, ACTIONS 15), (anon_sym_STAR, ACTIONS 17), (anon_sym_print, ACTIONS 19),
    (anon_sym_comptime, ACTIONS 335), (anon_sym_assert, ACTIONS 23),
    (anon_sym___comptime_assert, ACTIONS 25), (anon_sym_return, ACTIONS 27),
    (anon_sym_del, ACTIONS 29), (anon_sym_raise, ACTIONS 31), (anon_sym_pass, ACTIONS 33),
    (anon_sym_break, ACTIONS 35), (anon_sym_continue, ACTIONS 37),
    (anon_sym_match, ACTIONS 1596), (anon_sym_async, ACTIONS 73), (anon_sym_LBRACK, ACTIONS 59),
    (anon_sym_LBRACE, ACTIONS 61), (anon_sym_global, ACTIONS 63),
    (anon_sym_nonlocal, ACTIONS 65), (anon_sym_exec, ACTIONS 67), (anon_sym_type, ACTIONS 69),
    (anon_sym_mut, ACTIONS 73), (anon_sym_out, ACTIONS 73), (anon_sym_DASH, ACTIONS 79),
    (anon_sym_PLUS, ACTIONS 79), (anon_sym_ref, ACTIONS 81), (anon_sym_var, ACTIONS 81),
    (anon_sym_not, ACTIONS 83), (anon_sym_TILDE, ACTIONS 79), (anon_sym_lambda, ACTIONS 85),
    (anon_sym_yield, ACTIONS 87), (sym_ellipsis, ACTIONS 89), (anon_sym___mlir_type, ACTIONS 91),
    (sym_integer, ACTIONS 93), (sym_float, ACTIONS 89), (anon_sym_await, ACTIONS 95),
    (sym_true, ACTIONS 93), (sym_false, ACTIONS 93), (sym_none, ACTIONS 93),
    (sym_comment, ACTIONS 3), (sym_line_continuation, ACTIONS 3), (sym__newline, ACTIONS 1638),
    (sym__indent, ACTIONS 1640), (sym_string_start, ACTIONS 97)]"

definition parse_table_1232 :: "(nat \<times> nat) list" where "parse_table_1232 = [
    (sym__simple_statements, STATE 5114), (sym_import_statement, STATE 12239),
    (sym_future_import_statement, STATE 12239), (sym_import_from_statement, STATE 12239),
    (sym_print_statement, STATE 12239), (sym_assert_statement, STATE 12239),
    (sym_comptime_assert_statement, STATE 12239), (sym_expression_statement, STATE 12239),
    (sym_tuple_expression, STATE 12425), (sym_named_expression, STATE 7969),
    (sym__named_expression_lhs, STATE 12752), (sym_return_statement, STATE 12239),
    (sym_delete_statement, STATE 12239), (sym_raise_statement, STATE 12239),
    (sym_pass_statement, STATE 12239), (sym_break_statement, STATE 12239),
    (sym_continue_statement, STATE 12239), (sym_global_statement, STATE 12239),
    (sym_nonlocal_statement, STATE 12239), (sym_exec_statement, STATE 12239),
    (sym_type_alias_statement, STATE 12239), (sym_parameterized_alias_statement, STATE 12239),
    (sym_pattern, STATE 8086), (sym_tuple_pattern, STATE 8101), (sym_list_pattern, STATE 8101),
    (sym_list_splat_pattern, STATE 6819), (sym_as_pattern, STATE 7969),
    (sym_expression, STATE 9883), (sym_primary_expression, STATE 7326),
    (sym_comptime_expression, STATE 7017), (sym_transfer_expression, STATE 7017),
    (sym_not_operator, STATE 7969), (sym_boolean_operator, STATE 7969),
    (sym_binary_operator, STATE 7017), (sym_unary_operator, STATE 7017),
    (sym_comparison_operator, STATE 7969), (sym_lambda, STATE 7969),
    (sym_assignment, STATE 12425), (sym_augmented_assignment, STATE 12425),
    (sym_pattern_list, STATE 8578), (sym_yield, STATE 12425), (sym_attribute, STATE 6836),
    (sym_subscript, STATE 6838), (sym_call, STATE 6845), (sym_mlir_type, STATE 7017),
    (sym_list, STATE 7017), (sym_set, STATE 7017), (sym_tuple, STATE 7017),
    (sym_dictionary, STATE 7017), (sym_struct_literal, STATE 7017),
    (sym_list_comprehension, STATE 7017), (sym_dictionary_comprehension, STATE 7017),
    (sym_set_comprehension, STATE 7017), (sym_generator_expression, STATE 7017),
    (sym_parenthesized_expression, STATE 7017), (sym_conditional_expression, STATE 7969),
    (sym_concatenated_string, STATE 7017), (sym_string, STATE 6751), (sym_await, STATE 7017),
    (sym_identifier, ACTIONS 9), (anon_sym_import, ACTIONS 11), (anon_sym_from, ACTIONS 13),
    (anon_sym_LPAREN, ACTIONS 15), (anon_sym_STAR, ACTIONS 17), (anon_sym_print, ACTIONS 19),
    (anon_sym_comptime, ACTIONS 335), (anon_sym_assert, ACTIONS 23),
    (anon_sym___comptime_assert, ACTIONS 25), (anon_sym_return, ACTIONS 27),
    (anon_sym_del, ACTIONS 29), (anon_sym_raise, ACTIONS 31), (anon_sym_pass, ACTIONS 33),
    (anon_sym_break, ACTIONS 35), (anon_sym_continue, ACTIONS 37),
    (anon_sym_match, ACTIONS 1596), (anon_sym_async, ACTIONS 73), (anon_sym_LBRACK, ACTIONS 59),
    (anon_sym_LBRACE, ACTIONS 61), (anon_sym_global, ACTIONS 63),
    (anon_sym_nonlocal, ACTIONS 65), (anon_sym_exec, ACTIONS 67), (anon_sym_type, ACTIONS 69),
    (anon_sym_mut, ACTIONS 73), (anon_sym_out, ACTIONS 73), (anon_sym_DASH, ACTIONS 79),
    (anon_sym_PLUS, ACTIONS 79), (anon_sym_ref, ACTIONS 81), (anon_sym_var, ACTIONS 81),
    (anon_sym_not, ACTIONS 83), (anon_sym_TILDE, ACTIONS 79), (anon_sym_lambda, ACTIONS 85),
    (anon_sym_yield, ACTIONS 87), (sym_ellipsis, ACTIONS 89), (anon_sym___mlir_type, ACTIONS 91),
    (sym_integer, ACTIONS 93), (sym_float, ACTIONS 89), (anon_sym_await, ACTIONS 95),
    (sym_true, ACTIONS 93), (sym_false, ACTIONS 93), (sym_none, ACTIONS 93),
    (sym_comment, ACTIONS 3), (sym_line_continuation, ACTIONS 3), (sym__newline, ACTIONS 1642),
    (sym__indent, ACTIONS 1644), (sym_string_start, ACTIONS 97)]"

definition parse_table_1233 :: "(nat \<times> nat) list" where "parse_table_1233 = [
    (sym__simple_statements, STATE 5118), (sym_import_statement, STATE 12239),
    (sym_future_import_statement, STATE 12239), (sym_import_from_statement, STATE 12239),
    (sym_print_statement, STATE 12239), (sym_assert_statement, STATE 12239),
    (sym_comptime_assert_statement, STATE 12239), (sym_expression_statement, STATE 12239),
    (sym_tuple_expression, STATE 12425), (sym_named_expression, STATE 7969),
    (sym__named_expression_lhs, STATE 12752), (sym_return_statement, STATE 12239),
    (sym_delete_statement, STATE 12239), (sym_raise_statement, STATE 12239),
    (sym_pass_statement, STATE 12239), (sym_break_statement, STATE 12239),
    (sym_continue_statement, STATE 12239), (sym_global_statement, STATE 12239),
    (sym_nonlocal_statement, STATE 12239), (sym_exec_statement, STATE 12239),
    (sym_type_alias_statement, STATE 12239), (sym_parameterized_alias_statement, STATE 12239),
    (sym_pattern, STATE 8086), (sym_tuple_pattern, STATE 8101), (sym_list_pattern, STATE 8101),
    (sym_list_splat_pattern, STATE 6819), (sym_as_pattern, STATE 7969),
    (sym_expression, STATE 9883), (sym_primary_expression, STATE 7326),
    (sym_comptime_expression, STATE 7017), (sym_transfer_expression, STATE 7017),
    (sym_not_operator, STATE 7969), (sym_boolean_operator, STATE 7969),
    (sym_binary_operator, STATE 7017), (sym_unary_operator, STATE 7017),
    (sym_comparison_operator, STATE 7969), (sym_lambda, STATE 7969),
    (sym_assignment, STATE 12425), (sym_augmented_assignment, STATE 12425),
    (sym_pattern_list, STATE 8578), (sym_yield, STATE 12425), (sym_attribute, STATE 6836),
    (sym_subscript, STATE 6838), (sym_call, STATE 6845), (sym_mlir_type, STATE 7017),
    (sym_list, STATE 7017), (sym_set, STATE 7017), (sym_tuple, STATE 7017),
    (sym_dictionary, STATE 7017), (sym_struct_literal, STATE 7017),
    (sym_list_comprehension, STATE 7017), (sym_dictionary_comprehension, STATE 7017),
    (sym_set_comprehension, STATE 7017), (sym_generator_expression, STATE 7017),
    (sym_parenthesized_expression, STATE 7017), (sym_conditional_expression, STATE 7969),
    (sym_concatenated_string, STATE 7017), (sym_string, STATE 6751), (sym_await, STATE 7017),
    (sym_identifier, ACTIONS 9), (anon_sym_import, ACTIONS 11), (anon_sym_from, ACTIONS 13),
    (anon_sym_LPAREN, ACTIONS 15), (anon_sym_STAR, ACTIONS 17), (anon_sym_print, ACTIONS 19),
    (anon_sym_comptime, ACTIONS 335), (anon_sym_assert, ACTIONS 23),
    (anon_sym___comptime_assert, ACTIONS 25), (anon_sym_return, ACTIONS 27),
    (anon_sym_del, ACTIONS 29), (anon_sym_raise, ACTIONS 31), (anon_sym_pass, ACTIONS 33),
    (anon_sym_break, ACTIONS 35), (anon_sym_continue, ACTIONS 37),
    (anon_sym_match, ACTIONS 1596), (anon_sym_async, ACTIONS 73), (anon_sym_LBRACK, ACTIONS 59),
    (anon_sym_LBRACE, ACTIONS 61), (anon_sym_global, ACTIONS 63),
    (anon_sym_nonlocal, ACTIONS 65), (anon_sym_exec, ACTIONS 67), (anon_sym_type, ACTIONS 69),
    (anon_sym_mut, ACTIONS 73), (anon_sym_out, ACTIONS 73), (anon_sym_DASH, ACTIONS 79),
    (anon_sym_PLUS, ACTIONS 79), (anon_sym_ref, ACTIONS 81), (anon_sym_var, ACTIONS 81),
    (anon_sym_not, ACTIONS 83), (anon_sym_TILDE, ACTIONS 79), (anon_sym_lambda, ACTIONS 85),
    (anon_sym_yield, ACTIONS 87), (sym_ellipsis, ACTIONS 89), (anon_sym___mlir_type, ACTIONS 91),
    (sym_integer, ACTIONS 93), (sym_float, ACTIONS 89), (anon_sym_await, ACTIONS 95),
    (sym_true, ACTIONS 93), (sym_false, ACTIONS 93), (sym_none, ACTIONS 93),
    (sym_comment, ACTIONS 3), (sym_line_continuation, ACTIONS 3), (sym__newline, ACTIONS 1646),
    (sym__indent, ACTIONS 1648), (sym_string_start, ACTIONS 97)]"

definition parse_table_1234 :: "(nat \<times> nat) list" where "parse_table_1234 = [
    (sym__simple_statements, STATE 4533), (sym_import_statement, STATE 11814),
    (sym_future_import_statement, STATE 11814), (sym_import_from_statement, STATE 11814),
    (sym_print_statement, STATE 11814), (sym_assert_statement, STATE 11814),
    (sym_comptime_assert_statement, STATE 11814), (sym_expression_statement, STATE 11814),
    (sym_tuple_expression, STATE 12425), (sym_named_expression, STATE 7969),
    (sym__named_expression_lhs, STATE 12752), (sym_return_statement, STATE 11814),
    (sym_delete_statement, STATE 11814), (sym_raise_statement, STATE 11814),
    (sym_pass_statement, STATE 11814), (sym_break_statement, STATE 11814),
    (sym_continue_statement, STATE 11814), (sym_global_statement, STATE 11814),
    (sym_nonlocal_statement, STATE 11814), (sym_exec_statement, STATE 11814),
    (sym_type_alias_statement, STATE 11814), (sym_parameterized_alias_statement, STATE 11814),
    (sym_pattern, STATE 8086), (sym_tuple_pattern, STATE 8101), (sym_list_pattern, STATE 8101),
    (sym_list_splat_pattern, STATE 6819), (sym_as_pattern, STATE 7969),
    (sym_expression, STATE 9883), (sym_primary_expression, STATE 7326),
    (sym_comptime_expression, STATE 7017), (sym_transfer_expression, STATE 7017),
    (sym_not_operator, STATE 7969), (sym_boolean_operator, STATE 7969),
    (sym_binary_operator, STATE 7017), (sym_unary_operator, STATE 7017),
    (sym_comparison_operator, STATE 7969), (sym_lambda, STATE 7969),
    (sym_assignment, STATE 12425), (sym_augmented_assignment, STATE 12425),
    (sym_pattern_list, STATE 8578), (sym_yield, STATE 12425), (sym_attribute, STATE 6836),
    (sym_subscript, STATE 6838), (sym_call, STATE 6845), (sym_mlir_type, STATE 7017),
    (sym_list, STATE 7017), (sym_set, STATE 7017), (sym_tuple, STATE 7017),
    (sym_dictionary, STATE 7017), (sym_struct_literal, STATE 7017),
    (sym_list_comprehension, STATE 7017), (sym_dictionary_comprehension, STATE 7017),
    (sym_set_comprehension, STATE 7017), (sym_generator_expression, STATE 7017),
    (sym_parenthesized_expression, STATE 7017), (sym_conditional_expression, STATE 7969),
    (sym_concatenated_string, STATE 7017), (sym_string, STATE 6751), (sym_await, STATE 7017),
    (sym_identifier, ACTIONS 9), (anon_sym_import, ACTIONS 11), (anon_sym_from, ACTIONS 13),
    (anon_sym_LPAREN, ACTIONS 15), (anon_sym_STAR, ACTIONS 17), (anon_sym_print, ACTIONS 19),
    (anon_sym_comptime, ACTIONS 335), (anon_sym_assert, ACTIONS 23),
    (anon_sym___comptime_assert, ACTIONS 25), (anon_sym_return, ACTIONS 27),
    (anon_sym_del, ACTIONS 29), (anon_sym_raise, ACTIONS 31), (anon_sym_pass, ACTIONS 33),
    (anon_sym_break, ACTIONS 35), (anon_sym_continue, ACTIONS 37),
    (anon_sym_match, ACTIONS 1596), (anon_sym_async, ACTIONS 73), (anon_sym_LBRACK, ACTIONS 59),
    (anon_sym_LBRACE, ACTIONS 61), (anon_sym_global, ACTIONS 63),
    (anon_sym_nonlocal, ACTIONS 65), (anon_sym_exec, ACTIONS 67), (anon_sym_type, ACTIONS 69),
    (anon_sym_mut, ACTIONS 73), (anon_sym_out, ACTIONS 73), (anon_sym_DASH, ACTIONS 79),
    (anon_sym_PLUS, ACTIONS 79), (anon_sym_ref, ACTIONS 81), (anon_sym_var, ACTIONS 81),
    (anon_sym_not, ACTIONS 83), (anon_sym_TILDE, ACTIONS 79), (anon_sym_lambda, ACTIONS 85),
    (anon_sym_yield, ACTIONS 87), (sym_ellipsis, ACTIONS 89), (anon_sym___mlir_type, ACTIONS 91),
    (sym_integer, ACTIONS 93), (sym_float, ACTIONS 89), (anon_sym_await, ACTIONS 95),
    (sym_true, ACTIONS 93), (sym_false, ACTIONS 93), (sym_none, ACTIONS 93),
    (sym_comment, ACTIONS 3), (sym_line_continuation, ACTIONS 3), (sym__newline, ACTIONS 1650),
    (sym__indent, ACTIONS 1652), (sym_string_start, ACTIONS 97)]"

definition parse_table_1235 :: "(nat \<times> nat) list" where "parse_table_1235 = [
    (sym__simple_statements, STATE 4293), (sym_import_statement, STATE 11814),
    (sym_future_import_statement, STATE 11814), (sym_import_from_statement, STATE 11814),
    (sym_print_statement, STATE 11814), (sym_assert_statement, STATE 11814),
    (sym_comptime_assert_statement, STATE 11814), (sym_expression_statement, STATE 11814),
    (sym_tuple_expression, STATE 12425), (sym_named_expression, STATE 7969),
    (sym__named_expression_lhs, STATE 12752), (sym_return_statement, STATE 11814),
    (sym_delete_statement, STATE 11814), (sym_raise_statement, STATE 11814),
    (sym_pass_statement, STATE 11814), (sym_break_statement, STATE 11814),
    (sym_continue_statement, STATE 11814), (sym_global_statement, STATE 11814),
    (sym_nonlocal_statement, STATE 11814), (sym_exec_statement, STATE 11814),
    (sym_type_alias_statement, STATE 11814), (sym_parameterized_alias_statement, STATE 11814),
    (sym_pattern, STATE 8086), (sym_tuple_pattern, STATE 8101), (sym_list_pattern, STATE 8101),
    (sym_list_splat_pattern, STATE 6819), (sym_as_pattern, STATE 7969),
    (sym_expression, STATE 9883), (sym_primary_expression, STATE 7326),
    (sym_comptime_expression, STATE 7017), (sym_transfer_expression, STATE 7017),
    (sym_not_operator, STATE 7969), (sym_boolean_operator, STATE 7969),
    (sym_binary_operator, STATE 7017), (sym_unary_operator, STATE 7017),
    (sym_comparison_operator, STATE 7969), (sym_lambda, STATE 7969),
    (sym_assignment, STATE 12425), (sym_augmented_assignment, STATE 12425),
    (sym_pattern_list, STATE 8578), (sym_yield, STATE 12425), (sym_attribute, STATE 6836),
    (sym_subscript, STATE 6838), (sym_call, STATE 6845), (sym_mlir_type, STATE 7017),
    (sym_list, STATE 7017), (sym_set, STATE 7017), (sym_tuple, STATE 7017),
    (sym_dictionary, STATE 7017), (sym_struct_literal, STATE 7017),
    (sym_list_comprehension, STATE 7017), (sym_dictionary_comprehension, STATE 7017),
    (sym_set_comprehension, STATE 7017), (sym_generator_expression, STATE 7017),
    (sym_parenthesized_expression, STATE 7017), (sym_conditional_expression, STATE 7969),
    (sym_concatenated_string, STATE 7017), (sym_string, STATE 6751), (sym_await, STATE 7017),
    (sym_identifier, ACTIONS 9), (anon_sym_import, ACTIONS 11), (anon_sym_from, ACTIONS 13),
    (anon_sym_LPAREN, ACTIONS 15), (anon_sym_STAR, ACTIONS 17), (anon_sym_print, ACTIONS 19),
    (anon_sym_comptime, ACTIONS 335), (anon_sym_assert, ACTIONS 23),
    (anon_sym___comptime_assert, ACTIONS 25), (anon_sym_return, ACTIONS 27),
    (anon_sym_del, ACTIONS 29), (anon_sym_raise, ACTIONS 31), (anon_sym_pass, ACTIONS 33),
    (anon_sym_break, ACTIONS 35), (anon_sym_continue, ACTIONS 37),
    (anon_sym_match, ACTIONS 1596), (anon_sym_async, ACTIONS 73), (anon_sym_LBRACK, ACTIONS 59),
    (anon_sym_LBRACE, ACTIONS 61), (anon_sym_global, ACTIONS 63),
    (anon_sym_nonlocal, ACTIONS 65), (anon_sym_exec, ACTIONS 67), (anon_sym_type, ACTIONS 69),
    (anon_sym_mut, ACTIONS 73), (anon_sym_out, ACTIONS 73), (anon_sym_DASH, ACTIONS 79),
    (anon_sym_PLUS, ACTIONS 79), (anon_sym_ref, ACTIONS 81), (anon_sym_var, ACTIONS 81),
    (anon_sym_not, ACTIONS 83), (anon_sym_TILDE, ACTIONS 79), (anon_sym_lambda, ACTIONS 85),
    (anon_sym_yield, ACTIONS 87), (sym_ellipsis, ACTIONS 89), (anon_sym___mlir_type, ACTIONS 91),
    (sym_integer, ACTIONS 93), (sym_float, ACTIONS 89), (anon_sym_await, ACTIONS 95),
    (sym_true, ACTIONS 93), (sym_false, ACTIONS 93), (sym_none, ACTIONS 93),
    (sym_comment, ACTIONS 3), (sym_line_continuation, ACTIONS 3), (sym__newline, ACTIONS 1654),
    (sym__indent, ACTIONS 1656), (sym_string_start, ACTIONS 97)]"

definition parse_table_1236 :: "(nat \<times> nat) list" where "parse_table_1236 = [
    (sym__simple_statements, STATE 4083), (sym_import_statement, STATE 11814),
    (sym_future_import_statement, STATE 11814), (sym_import_from_statement, STATE 11814),
    (sym_print_statement, STATE 11814), (sym_assert_statement, STATE 11814),
    (sym_comptime_assert_statement, STATE 11814), (sym_expression_statement, STATE 11814),
    (sym_tuple_expression, STATE 12425), (sym_named_expression, STATE 7969),
    (sym__named_expression_lhs, STATE 12752), (sym_return_statement, STATE 11814),
    (sym_delete_statement, STATE 11814), (sym_raise_statement, STATE 11814),
    (sym_pass_statement, STATE 11814), (sym_break_statement, STATE 11814),
    (sym_continue_statement, STATE 11814), (sym_global_statement, STATE 11814),
    (sym_nonlocal_statement, STATE 11814), (sym_exec_statement, STATE 11814),
    (sym_type_alias_statement, STATE 11814), (sym_parameterized_alias_statement, STATE 11814),
    (sym_pattern, STATE 8086), (sym_tuple_pattern, STATE 8101), (sym_list_pattern, STATE 8101),
    (sym_list_splat_pattern, STATE 6819), (sym_as_pattern, STATE 7969),
    (sym_expression, STATE 9883), (sym_primary_expression, STATE 7326),
    (sym_comptime_expression, STATE 7017), (sym_transfer_expression, STATE 7017),
    (sym_not_operator, STATE 7969), (sym_boolean_operator, STATE 7969),
    (sym_binary_operator, STATE 7017), (sym_unary_operator, STATE 7017),
    (sym_comparison_operator, STATE 7969), (sym_lambda, STATE 7969),
    (sym_assignment, STATE 12425), (sym_augmented_assignment, STATE 12425),
    (sym_pattern_list, STATE 8578), (sym_yield, STATE 12425), (sym_attribute, STATE 6836),
    (sym_subscript, STATE 6838), (sym_call, STATE 6845), (sym_mlir_type, STATE 7017),
    (sym_list, STATE 7017), (sym_set, STATE 7017), (sym_tuple, STATE 7017),
    (sym_dictionary, STATE 7017), (sym_struct_literal, STATE 7017),
    (sym_list_comprehension, STATE 7017), (sym_dictionary_comprehension, STATE 7017),
    (sym_set_comprehension, STATE 7017), (sym_generator_expression, STATE 7017),
    (sym_parenthesized_expression, STATE 7017), (sym_conditional_expression, STATE 7969),
    (sym_concatenated_string, STATE 7017), (sym_string, STATE 6751), (sym_await, STATE 7017),
    (sym_identifier, ACTIONS 9), (anon_sym_import, ACTIONS 11), (anon_sym_from, ACTIONS 13),
    (anon_sym_LPAREN, ACTIONS 15), (anon_sym_STAR, ACTIONS 17), (anon_sym_print, ACTIONS 19),
    (anon_sym_comptime, ACTIONS 335), (anon_sym_assert, ACTIONS 23),
    (anon_sym___comptime_assert, ACTIONS 25), (anon_sym_return, ACTIONS 27),
    (anon_sym_del, ACTIONS 29), (anon_sym_raise, ACTIONS 31), (anon_sym_pass, ACTIONS 33),
    (anon_sym_break, ACTIONS 35), (anon_sym_continue, ACTIONS 37),
    (anon_sym_match, ACTIONS 1596), (anon_sym_async, ACTIONS 73), (anon_sym_LBRACK, ACTIONS 59),
    (anon_sym_LBRACE, ACTIONS 61), (anon_sym_global, ACTIONS 63),
    (anon_sym_nonlocal, ACTIONS 65), (anon_sym_exec, ACTIONS 67), (anon_sym_type, ACTIONS 69),
    (anon_sym_mut, ACTIONS 73), (anon_sym_out, ACTIONS 73), (anon_sym_DASH, ACTIONS 79),
    (anon_sym_PLUS, ACTIONS 79), (anon_sym_ref, ACTIONS 81), (anon_sym_var, ACTIONS 81),
    (anon_sym_not, ACTIONS 83), (anon_sym_TILDE, ACTIONS 79), (anon_sym_lambda, ACTIONS 85),
    (anon_sym_yield, ACTIONS 87), (sym_ellipsis, ACTIONS 89), (anon_sym___mlir_type, ACTIONS 91),
    (sym_integer, ACTIONS 93), (sym_float, ACTIONS 89), (anon_sym_await, ACTIONS 95),
    (sym_true, ACTIONS 93), (sym_false, ACTIONS 93), (sym_none, ACTIONS 93),
    (sym_comment, ACTIONS 3), (sym_line_continuation, ACTIONS 3), (sym__newline, ACTIONS 1658),
    (sym__indent, ACTIONS 1660), (sym_string_start, ACTIONS 97)]"

definition parse_table_1237 :: "(nat \<times> nat) list" where "parse_table_1237 = [
    (sym__simple_statements, STATE 4538), (sym_import_statement, STATE 11814),
    (sym_future_import_statement, STATE 11814), (sym_import_from_statement, STATE 11814),
    (sym_print_statement, STATE 11814), (sym_assert_statement, STATE 11814),
    (sym_comptime_assert_statement, STATE 11814), (sym_expression_statement, STATE 11814),
    (sym_tuple_expression, STATE 12425), (sym_named_expression, STATE 7969),
    (sym__named_expression_lhs, STATE 12752), (sym_return_statement, STATE 11814),
    (sym_delete_statement, STATE 11814), (sym_raise_statement, STATE 11814),
    (sym_pass_statement, STATE 11814), (sym_break_statement, STATE 11814),
    (sym_continue_statement, STATE 11814), (sym_global_statement, STATE 11814),
    (sym_nonlocal_statement, STATE 11814), (sym_exec_statement, STATE 11814),
    (sym_type_alias_statement, STATE 11814), (sym_parameterized_alias_statement, STATE 11814),
    (sym_pattern, STATE 8086), (sym_tuple_pattern, STATE 8101), (sym_list_pattern, STATE 8101),
    (sym_list_splat_pattern, STATE 6819), (sym_as_pattern, STATE 7969),
    (sym_expression, STATE 9883), (sym_primary_expression, STATE 7326),
    (sym_comptime_expression, STATE 7017), (sym_transfer_expression, STATE 7017),
    (sym_not_operator, STATE 7969), (sym_boolean_operator, STATE 7969),
    (sym_binary_operator, STATE 7017), (sym_unary_operator, STATE 7017),
    (sym_comparison_operator, STATE 7969), (sym_lambda, STATE 7969),
    (sym_assignment, STATE 12425), (sym_augmented_assignment, STATE 12425),
    (sym_pattern_list, STATE 8578), (sym_yield, STATE 12425), (sym_attribute, STATE 6836),
    (sym_subscript, STATE 6838), (sym_call, STATE 6845), (sym_mlir_type, STATE 7017),
    (sym_list, STATE 7017), (sym_set, STATE 7017), (sym_tuple, STATE 7017),
    (sym_dictionary, STATE 7017), (sym_struct_literal, STATE 7017),
    (sym_list_comprehension, STATE 7017), (sym_dictionary_comprehension, STATE 7017),
    (sym_set_comprehension, STATE 7017), (sym_generator_expression, STATE 7017),
    (sym_parenthesized_expression, STATE 7017), (sym_conditional_expression, STATE 7969),
    (sym_concatenated_string, STATE 7017), (sym_string, STATE 6751), (sym_await, STATE 7017),
    (sym_identifier, ACTIONS 9), (anon_sym_import, ACTIONS 11), (anon_sym_from, ACTIONS 13),
    (anon_sym_LPAREN, ACTIONS 15), (anon_sym_STAR, ACTIONS 17), (anon_sym_print, ACTIONS 19),
    (anon_sym_comptime, ACTIONS 335), (anon_sym_assert, ACTIONS 23),
    (anon_sym___comptime_assert, ACTIONS 25), (anon_sym_return, ACTIONS 27),
    (anon_sym_del, ACTIONS 29), (anon_sym_raise, ACTIONS 31), (anon_sym_pass, ACTIONS 33),
    (anon_sym_break, ACTIONS 35), (anon_sym_continue, ACTIONS 37),
    (anon_sym_match, ACTIONS 1596), (anon_sym_async, ACTIONS 73), (anon_sym_LBRACK, ACTIONS 59),
    (anon_sym_LBRACE, ACTIONS 61), (anon_sym_global, ACTIONS 63),
    (anon_sym_nonlocal, ACTIONS 65), (anon_sym_exec, ACTIONS 67), (anon_sym_type, ACTIONS 69),
    (anon_sym_mut, ACTIONS 73), (anon_sym_out, ACTIONS 73), (anon_sym_DASH, ACTIONS 79),
    (anon_sym_PLUS, ACTIONS 79), (anon_sym_ref, ACTIONS 81), (anon_sym_var, ACTIONS 81),
    (anon_sym_not, ACTIONS 83), (anon_sym_TILDE, ACTIONS 79), (anon_sym_lambda, ACTIONS 85),
    (anon_sym_yield, ACTIONS 87), (sym_ellipsis, ACTIONS 89), (anon_sym___mlir_type, ACTIONS 91),
    (sym_integer, ACTIONS 93), (sym_float, ACTIONS 89), (anon_sym_await, ACTIONS 95),
    (sym_true, ACTIONS 93), (sym_false, ACTIONS 93), (sym_none, ACTIONS 93),
    (sym_comment, ACTIONS 3), (sym_line_continuation, ACTIONS 3), (sym__newline, ACTIONS 1662),
    (sym__indent, ACTIONS 1664), (sym_string_start, ACTIONS 97)]"

definition parse_table_1238 :: "(nat \<times> nat) list" where "parse_table_1238 = [
    (sym__simple_statements, STATE 4546), (sym_import_statement, STATE 11814),
    (sym_future_import_statement, STATE 11814), (sym_import_from_statement, STATE 11814),
    (sym_print_statement, STATE 11814), (sym_assert_statement, STATE 11814),
    (sym_comptime_assert_statement, STATE 11814), (sym_expression_statement, STATE 11814),
    (sym_tuple_expression, STATE 12425), (sym_named_expression, STATE 7969),
    (sym__named_expression_lhs, STATE 12752), (sym_return_statement, STATE 11814),
    (sym_delete_statement, STATE 11814), (sym_raise_statement, STATE 11814),
    (sym_pass_statement, STATE 11814), (sym_break_statement, STATE 11814),
    (sym_continue_statement, STATE 11814), (sym_global_statement, STATE 11814),
    (sym_nonlocal_statement, STATE 11814), (sym_exec_statement, STATE 11814),
    (sym_type_alias_statement, STATE 11814), (sym_parameterized_alias_statement, STATE 11814),
    (sym_pattern, STATE 8086), (sym_tuple_pattern, STATE 8101), (sym_list_pattern, STATE 8101),
    (sym_list_splat_pattern, STATE 6819), (sym_as_pattern, STATE 7969),
    (sym_expression, STATE 9883), (sym_primary_expression, STATE 7326),
    (sym_comptime_expression, STATE 7017), (sym_transfer_expression, STATE 7017),
    (sym_not_operator, STATE 7969), (sym_boolean_operator, STATE 7969),
    (sym_binary_operator, STATE 7017), (sym_unary_operator, STATE 7017),
    (sym_comparison_operator, STATE 7969), (sym_lambda, STATE 7969),
    (sym_assignment, STATE 12425), (sym_augmented_assignment, STATE 12425),
    (sym_pattern_list, STATE 8578), (sym_yield, STATE 12425), (sym_attribute, STATE 6836),
    (sym_subscript, STATE 6838), (sym_call, STATE 6845), (sym_mlir_type, STATE 7017),
    (sym_list, STATE 7017), (sym_set, STATE 7017), (sym_tuple, STATE 7017),
    (sym_dictionary, STATE 7017), (sym_struct_literal, STATE 7017),
    (sym_list_comprehension, STATE 7017), (sym_dictionary_comprehension, STATE 7017),
    (sym_set_comprehension, STATE 7017), (sym_generator_expression, STATE 7017),
    (sym_parenthesized_expression, STATE 7017), (sym_conditional_expression, STATE 7969),
    (sym_concatenated_string, STATE 7017), (sym_string, STATE 6751), (sym_await, STATE 7017),
    (sym_identifier, ACTIONS 9), (anon_sym_import, ACTIONS 11), (anon_sym_from, ACTIONS 13),
    (anon_sym_LPAREN, ACTIONS 15), (anon_sym_STAR, ACTIONS 17), (anon_sym_print, ACTIONS 19),
    (anon_sym_comptime, ACTIONS 335), (anon_sym_assert, ACTIONS 23),
    (anon_sym___comptime_assert, ACTIONS 25), (anon_sym_return, ACTIONS 27),
    (anon_sym_del, ACTIONS 29), (anon_sym_raise, ACTIONS 31), (anon_sym_pass, ACTIONS 33),
    (anon_sym_break, ACTIONS 35), (anon_sym_continue, ACTIONS 37),
    (anon_sym_match, ACTIONS 1596), (anon_sym_async, ACTIONS 73), (anon_sym_LBRACK, ACTIONS 59),
    (anon_sym_LBRACE, ACTIONS 61), (anon_sym_global, ACTIONS 63),
    (anon_sym_nonlocal, ACTIONS 65), (anon_sym_exec, ACTIONS 67), (anon_sym_type, ACTIONS 69),
    (anon_sym_mut, ACTIONS 73), (anon_sym_out, ACTIONS 73), (anon_sym_DASH, ACTIONS 79),
    (anon_sym_PLUS, ACTIONS 79), (anon_sym_ref, ACTIONS 81), (anon_sym_var, ACTIONS 81),
    (anon_sym_not, ACTIONS 83), (anon_sym_TILDE, ACTIONS 79), (anon_sym_lambda, ACTIONS 85),
    (anon_sym_yield, ACTIONS 87), (sym_ellipsis, ACTIONS 89), (anon_sym___mlir_type, ACTIONS 91),
    (sym_integer, ACTIONS 93), (sym_float, ACTIONS 89), (anon_sym_await, ACTIONS 95),
    (sym_true, ACTIONS 93), (sym_false, ACTIONS 93), (sym_none, ACTIONS 93),
    (sym_comment, ACTIONS 3), (sym_line_continuation, ACTIONS 3), (sym__newline, ACTIONS 1666),
    (sym__indent, ACTIONS 1668), (sym_string_start, ACTIONS 97)]"

definition parse_table_1239 :: "(nat \<times> nat) list" where "parse_table_1239 = [
    (sym__simple_statements, STATE 4548), (sym_import_statement, STATE 11814),
    (sym_future_import_statement, STATE 11814), (sym_import_from_statement, STATE 11814),
    (sym_print_statement, STATE 11814), (sym_assert_statement, STATE 11814),
    (sym_comptime_assert_statement, STATE 11814), (sym_expression_statement, STATE 11814),
    (sym_tuple_expression, STATE 12425), (sym_named_expression, STATE 7969),
    (sym__named_expression_lhs, STATE 12752), (sym_return_statement, STATE 11814),
    (sym_delete_statement, STATE 11814), (sym_raise_statement, STATE 11814),
    (sym_pass_statement, STATE 11814), (sym_break_statement, STATE 11814),
    (sym_continue_statement, STATE 11814), (sym_global_statement, STATE 11814),
    (sym_nonlocal_statement, STATE 11814), (sym_exec_statement, STATE 11814),
    (sym_type_alias_statement, STATE 11814), (sym_parameterized_alias_statement, STATE 11814),
    (sym_pattern, STATE 8086), (sym_tuple_pattern, STATE 8101), (sym_list_pattern, STATE 8101),
    (sym_list_splat_pattern, STATE 6819), (sym_as_pattern, STATE 7969),
    (sym_expression, STATE 9883), (sym_primary_expression, STATE 7326),
    (sym_comptime_expression, STATE 7017), (sym_transfer_expression, STATE 7017),
    (sym_not_operator, STATE 7969), (sym_boolean_operator, STATE 7969),
    (sym_binary_operator, STATE 7017), (sym_unary_operator, STATE 7017),
    (sym_comparison_operator, STATE 7969), (sym_lambda, STATE 7969),
    (sym_assignment, STATE 12425), (sym_augmented_assignment, STATE 12425),
    (sym_pattern_list, STATE 8578), (sym_yield, STATE 12425), (sym_attribute, STATE 6836),
    (sym_subscript, STATE 6838), (sym_call, STATE 6845), (sym_mlir_type, STATE 7017),
    (sym_list, STATE 7017), (sym_set, STATE 7017), (sym_tuple, STATE 7017),
    (sym_dictionary, STATE 7017), (sym_struct_literal, STATE 7017),
    (sym_list_comprehension, STATE 7017), (sym_dictionary_comprehension, STATE 7017),
    (sym_set_comprehension, STATE 7017), (sym_generator_expression, STATE 7017),
    (sym_parenthesized_expression, STATE 7017), (sym_conditional_expression, STATE 7969),
    (sym_concatenated_string, STATE 7017), (sym_string, STATE 6751), (sym_await, STATE 7017),
    (sym_identifier, ACTIONS 9), (anon_sym_import, ACTIONS 11), (anon_sym_from, ACTIONS 13),
    (anon_sym_LPAREN, ACTIONS 15), (anon_sym_STAR, ACTIONS 17), (anon_sym_print, ACTIONS 19),
    (anon_sym_comptime, ACTIONS 335), (anon_sym_assert, ACTIONS 23),
    (anon_sym___comptime_assert, ACTIONS 25), (anon_sym_return, ACTIONS 27),
    (anon_sym_del, ACTIONS 29), (anon_sym_raise, ACTIONS 31), (anon_sym_pass, ACTIONS 33),
    (anon_sym_break, ACTIONS 35), (anon_sym_continue, ACTIONS 37),
    (anon_sym_match, ACTIONS 1596), (anon_sym_async, ACTIONS 73), (anon_sym_LBRACK, ACTIONS 59),
    (anon_sym_LBRACE, ACTIONS 61), (anon_sym_global, ACTIONS 63),
    (anon_sym_nonlocal, ACTIONS 65), (anon_sym_exec, ACTIONS 67), (anon_sym_type, ACTIONS 69),
    (anon_sym_mut, ACTIONS 73), (anon_sym_out, ACTIONS 73), (anon_sym_DASH, ACTIONS 79),
    (anon_sym_PLUS, ACTIONS 79), (anon_sym_ref, ACTIONS 81), (anon_sym_var, ACTIONS 81),
    (anon_sym_not, ACTIONS 83), (anon_sym_TILDE, ACTIONS 79), (anon_sym_lambda, ACTIONS 85),
    (anon_sym_yield, ACTIONS 87), (sym_ellipsis, ACTIONS 89), (anon_sym___mlir_type, ACTIONS 91),
    (sym_integer, ACTIONS 93), (sym_float, ACTIONS 89), (anon_sym_await, ACTIONS 95),
    (sym_true, ACTIONS 93), (sym_false, ACTIONS 93), (sym_none, ACTIONS 93),
    (sym_comment, ACTIONS 3), (sym_line_continuation, ACTIONS 3), (sym__newline, ACTIONS 1670),
    (sym__indent, ACTIONS 1672), (sym_string_start, ACTIONS 97)]"

definition parse_table_1240 :: "(nat \<times> nat) list" where "parse_table_1240 = [
    (sym__simple_statements, STATE 4549), (sym_import_statement, STATE 11814),
    (sym_future_import_statement, STATE 11814), (sym_import_from_statement, STATE 11814),
    (sym_print_statement, STATE 11814), (sym_assert_statement, STATE 11814),
    (sym_comptime_assert_statement, STATE 11814), (sym_expression_statement, STATE 11814),
    (sym_tuple_expression, STATE 12425), (sym_named_expression, STATE 7969),
    (sym__named_expression_lhs, STATE 12752), (sym_return_statement, STATE 11814),
    (sym_delete_statement, STATE 11814), (sym_raise_statement, STATE 11814),
    (sym_pass_statement, STATE 11814), (sym_break_statement, STATE 11814),
    (sym_continue_statement, STATE 11814), (sym_global_statement, STATE 11814),
    (sym_nonlocal_statement, STATE 11814), (sym_exec_statement, STATE 11814),
    (sym_type_alias_statement, STATE 11814), (sym_parameterized_alias_statement, STATE 11814),
    (sym_pattern, STATE 8086), (sym_tuple_pattern, STATE 8101), (sym_list_pattern, STATE 8101),
    (sym_list_splat_pattern, STATE 6819), (sym_as_pattern, STATE 7969),
    (sym_expression, STATE 9883), (sym_primary_expression, STATE 7326),
    (sym_comptime_expression, STATE 7017), (sym_transfer_expression, STATE 7017),
    (sym_not_operator, STATE 7969), (sym_boolean_operator, STATE 7969),
    (sym_binary_operator, STATE 7017), (sym_unary_operator, STATE 7017),
    (sym_comparison_operator, STATE 7969), (sym_lambda, STATE 7969),
    (sym_assignment, STATE 12425), (sym_augmented_assignment, STATE 12425),
    (sym_pattern_list, STATE 8578), (sym_yield, STATE 12425), (sym_attribute, STATE 6836),
    (sym_subscript, STATE 6838), (sym_call, STATE 6845), (sym_mlir_type, STATE 7017),
    (sym_list, STATE 7017), (sym_set, STATE 7017), (sym_tuple, STATE 7017),
    (sym_dictionary, STATE 7017), (sym_struct_literal, STATE 7017),
    (sym_list_comprehension, STATE 7017), (sym_dictionary_comprehension, STATE 7017),
    (sym_set_comprehension, STATE 7017), (sym_generator_expression, STATE 7017),
    (sym_parenthesized_expression, STATE 7017), (sym_conditional_expression, STATE 7969),
    (sym_concatenated_string, STATE 7017), (sym_string, STATE 6751), (sym_await, STATE 7017),
    (sym_identifier, ACTIONS 9), (anon_sym_import, ACTIONS 11), (anon_sym_from, ACTIONS 13),
    (anon_sym_LPAREN, ACTIONS 15), (anon_sym_STAR, ACTIONS 17), (anon_sym_print, ACTIONS 19),
    (anon_sym_comptime, ACTIONS 335), (anon_sym_assert, ACTIONS 23),
    (anon_sym___comptime_assert, ACTIONS 25), (anon_sym_return, ACTIONS 27),
    (anon_sym_del, ACTIONS 29), (anon_sym_raise, ACTIONS 31), (anon_sym_pass, ACTIONS 33),
    (anon_sym_break, ACTIONS 35), (anon_sym_continue, ACTIONS 37),
    (anon_sym_match, ACTIONS 1596), (anon_sym_async, ACTIONS 73), (anon_sym_LBRACK, ACTIONS 59),
    (anon_sym_LBRACE, ACTIONS 61), (anon_sym_global, ACTIONS 63),
    (anon_sym_nonlocal, ACTIONS 65), (anon_sym_exec, ACTIONS 67), (anon_sym_type, ACTIONS 69),
    (anon_sym_mut, ACTIONS 73), (anon_sym_out, ACTIONS 73), (anon_sym_DASH, ACTIONS 79),
    (anon_sym_PLUS, ACTIONS 79), (anon_sym_ref, ACTIONS 81), (anon_sym_var, ACTIONS 81),
    (anon_sym_not, ACTIONS 83), (anon_sym_TILDE, ACTIONS 79), (anon_sym_lambda, ACTIONS 85),
    (anon_sym_yield, ACTIONS 87), (sym_ellipsis, ACTIONS 89), (anon_sym___mlir_type, ACTIONS 91),
    (sym_integer, ACTIONS 93), (sym_float, ACTIONS 89), (anon_sym_await, ACTIONS 95),
    (sym_true, ACTIONS 93), (sym_false, ACTIONS 93), (sym_none, ACTIONS 93),
    (sym_comment, ACTIONS 3), (sym_line_continuation, ACTIONS 3), (sym__newline, ACTIONS 1674),
    (sym__indent, ACTIONS 1676), (sym_string_start, ACTIONS 97)]"

definition parse_table_1241 :: "(nat \<times> nat) list" where "parse_table_1241 = [
    (sym__simple_statements, STATE 4559), (sym_import_statement, STATE 11814),
    (sym_future_import_statement, STATE 11814), (sym_import_from_statement, STATE 11814),
    (sym_print_statement, STATE 11814), (sym_assert_statement, STATE 11814),
    (sym_comptime_assert_statement, STATE 11814), (sym_expression_statement, STATE 11814),
    (sym_tuple_expression, STATE 12425), (sym_named_expression, STATE 7969),
    (sym__named_expression_lhs, STATE 12752), (sym_return_statement, STATE 11814),
    (sym_delete_statement, STATE 11814), (sym_raise_statement, STATE 11814),
    (sym_pass_statement, STATE 11814), (sym_break_statement, STATE 11814),
    (sym_continue_statement, STATE 11814), (sym_global_statement, STATE 11814),
    (sym_nonlocal_statement, STATE 11814), (sym_exec_statement, STATE 11814),
    (sym_type_alias_statement, STATE 11814), (sym_parameterized_alias_statement, STATE 11814),
    (sym_pattern, STATE 8086), (sym_tuple_pattern, STATE 8101), (sym_list_pattern, STATE 8101),
    (sym_list_splat_pattern, STATE 6819), (sym_as_pattern, STATE 7969),
    (sym_expression, STATE 9883), (sym_primary_expression, STATE 7326),
    (sym_comptime_expression, STATE 7017), (sym_transfer_expression, STATE 7017),
    (sym_not_operator, STATE 7969), (sym_boolean_operator, STATE 7969),
    (sym_binary_operator, STATE 7017), (sym_unary_operator, STATE 7017),
    (sym_comparison_operator, STATE 7969), (sym_lambda, STATE 7969),
    (sym_assignment, STATE 12425), (sym_augmented_assignment, STATE 12425),
    (sym_pattern_list, STATE 8578), (sym_yield, STATE 12425), (sym_attribute, STATE 6836),
    (sym_subscript, STATE 6838), (sym_call, STATE 6845), (sym_mlir_type, STATE 7017),
    (sym_list, STATE 7017), (sym_set, STATE 7017), (sym_tuple, STATE 7017),
    (sym_dictionary, STATE 7017), (sym_struct_literal, STATE 7017),
    (sym_list_comprehension, STATE 7017), (sym_dictionary_comprehension, STATE 7017),
    (sym_set_comprehension, STATE 7017), (sym_generator_expression, STATE 7017),
    (sym_parenthesized_expression, STATE 7017), (sym_conditional_expression, STATE 7969),
    (sym_concatenated_string, STATE 7017), (sym_string, STATE 6751), (sym_await, STATE 7017),
    (sym_identifier, ACTIONS 9), (anon_sym_import, ACTIONS 11), (anon_sym_from, ACTIONS 13),
    (anon_sym_LPAREN, ACTIONS 15), (anon_sym_STAR, ACTIONS 17), (anon_sym_print, ACTIONS 19),
    (anon_sym_comptime, ACTIONS 335), (anon_sym_assert, ACTIONS 23),
    (anon_sym___comptime_assert, ACTIONS 25), (anon_sym_return, ACTIONS 27),
    (anon_sym_del, ACTIONS 29), (anon_sym_raise, ACTIONS 31), (anon_sym_pass, ACTIONS 33),
    (anon_sym_break, ACTIONS 35), (anon_sym_continue, ACTIONS 37),
    (anon_sym_match, ACTIONS 1596), (anon_sym_async, ACTIONS 73), (anon_sym_LBRACK, ACTIONS 59),
    (anon_sym_LBRACE, ACTIONS 61), (anon_sym_global, ACTIONS 63),
    (anon_sym_nonlocal, ACTIONS 65), (anon_sym_exec, ACTIONS 67), (anon_sym_type, ACTIONS 69),
    (anon_sym_mut, ACTIONS 73), (anon_sym_out, ACTIONS 73), (anon_sym_DASH, ACTIONS 79),
    (anon_sym_PLUS, ACTIONS 79), (anon_sym_ref, ACTIONS 81), (anon_sym_var, ACTIONS 81),
    (anon_sym_not, ACTIONS 83), (anon_sym_TILDE, ACTIONS 79), (anon_sym_lambda, ACTIONS 85),
    (anon_sym_yield, ACTIONS 87), (sym_ellipsis, ACTIONS 89), (anon_sym___mlir_type, ACTIONS 91),
    (sym_integer, ACTIONS 93), (sym_float, ACTIONS 89), (anon_sym_await, ACTIONS 95),
    (sym_true, ACTIONS 93), (sym_false, ACTIONS 93), (sym_none, ACTIONS 93),
    (sym_comment, ACTIONS 3), (sym_line_continuation, ACTIONS 3), (sym__newline, ACTIONS 1678),
    (sym__indent, ACTIONS 1680), (sym_string_start, ACTIONS 97)]"

definition parse_table_1242 :: "(nat \<times> nat) list" where "parse_table_1242 = [
    (sym__simple_statements, STATE 5125), (sym_import_statement, STATE 12239),
    (sym_future_import_statement, STATE 12239), (sym_import_from_statement, STATE 12239),
    (sym_print_statement, STATE 12239), (sym_assert_statement, STATE 12239),
    (sym_comptime_assert_statement, STATE 12239), (sym_expression_statement, STATE 12239),
    (sym_tuple_expression, STATE 12425), (sym_named_expression, STATE 7969),
    (sym__named_expression_lhs, STATE 12752), (sym_return_statement, STATE 12239),
    (sym_delete_statement, STATE 12239), (sym_raise_statement, STATE 12239),
    (sym_pass_statement, STATE 12239), (sym_break_statement, STATE 12239),
    (sym_continue_statement, STATE 12239), (sym_global_statement, STATE 12239),
    (sym_nonlocal_statement, STATE 12239), (sym_exec_statement, STATE 12239),
    (sym_type_alias_statement, STATE 12239), (sym_parameterized_alias_statement, STATE 12239),
    (sym_pattern, STATE 8086), (sym_tuple_pattern, STATE 8101), (sym_list_pattern, STATE 8101),
    (sym_list_splat_pattern, STATE 6819), (sym_as_pattern, STATE 7969),
    (sym_expression, STATE 9883), (sym_primary_expression, STATE 7326),
    (sym_comptime_expression, STATE 7017), (sym_transfer_expression, STATE 7017),
    (sym_not_operator, STATE 7969), (sym_boolean_operator, STATE 7969),
    (sym_binary_operator, STATE 7017), (sym_unary_operator, STATE 7017),
    (sym_comparison_operator, STATE 7969), (sym_lambda, STATE 7969),
    (sym_assignment, STATE 12425), (sym_augmented_assignment, STATE 12425),
    (sym_pattern_list, STATE 8578), (sym_yield, STATE 12425), (sym_attribute, STATE 6836),
    (sym_subscript, STATE 6838), (sym_call, STATE 6845), (sym_mlir_type, STATE 7017),
    (sym_list, STATE 7017), (sym_set, STATE 7017), (sym_tuple, STATE 7017),
    (sym_dictionary, STATE 7017), (sym_struct_literal, STATE 7017),
    (sym_list_comprehension, STATE 7017), (sym_dictionary_comprehension, STATE 7017),
    (sym_set_comprehension, STATE 7017), (sym_generator_expression, STATE 7017),
    (sym_parenthesized_expression, STATE 7017), (sym_conditional_expression, STATE 7969),
    (sym_concatenated_string, STATE 7017), (sym_string, STATE 6751), (sym_await, STATE 7017),
    (sym_identifier, ACTIONS 9), (anon_sym_import, ACTIONS 11), (anon_sym_from, ACTIONS 13),
    (anon_sym_LPAREN, ACTIONS 15), (anon_sym_STAR, ACTIONS 17), (anon_sym_print, ACTIONS 19),
    (anon_sym_comptime, ACTIONS 335), (anon_sym_assert, ACTIONS 23),
    (anon_sym___comptime_assert, ACTIONS 25), (anon_sym_return, ACTIONS 27),
    (anon_sym_del, ACTIONS 29), (anon_sym_raise, ACTIONS 31), (anon_sym_pass, ACTIONS 33),
    (anon_sym_break, ACTIONS 35), (anon_sym_continue, ACTIONS 37),
    (anon_sym_match, ACTIONS 1596), (anon_sym_async, ACTIONS 73), (anon_sym_LBRACK, ACTIONS 59),
    (anon_sym_LBRACE, ACTIONS 61), (anon_sym_global, ACTIONS 63),
    (anon_sym_nonlocal, ACTIONS 65), (anon_sym_exec, ACTIONS 67), (anon_sym_type, ACTIONS 69),
    (anon_sym_mut, ACTIONS 73), (anon_sym_out, ACTIONS 73), (anon_sym_DASH, ACTIONS 79),
    (anon_sym_PLUS, ACTIONS 79), (anon_sym_ref, ACTIONS 81), (anon_sym_var, ACTIONS 81),
    (anon_sym_not, ACTIONS 83), (anon_sym_TILDE, ACTIONS 79), (anon_sym_lambda, ACTIONS 85),
    (anon_sym_yield, ACTIONS 87), (sym_ellipsis, ACTIONS 89), (anon_sym___mlir_type, ACTIONS 91),
    (sym_integer, ACTIONS 93), (sym_float, ACTIONS 89), (anon_sym_await, ACTIONS 95),
    (sym_true, ACTIONS 93), (sym_false, ACTIONS 93), (sym_none, ACTIONS 93),
    (sym_comment, ACTIONS 3), (sym_line_continuation, ACTIONS 3), (sym__newline, ACTIONS 1682),
    (sym__indent, ACTIONS 1684), (sym_string_start, ACTIONS 97)]"

definition parse_table_1243 :: "(nat \<times> nat) list" where "parse_table_1243 = [
    (sym__simple_statements, STATE 4309), (sym_import_statement, STATE 11814),
    (sym_future_import_statement, STATE 11814), (sym_import_from_statement, STATE 11814),
    (sym_print_statement, STATE 11814), (sym_assert_statement, STATE 11814),
    (sym_comptime_assert_statement, STATE 11814), (sym_expression_statement, STATE 11814),
    (sym_tuple_expression, STATE 12425), (sym_named_expression, STATE 7969),
    (sym__named_expression_lhs, STATE 12752), (sym_return_statement, STATE 11814),
    (sym_delete_statement, STATE 11814), (sym_raise_statement, STATE 11814),
    (sym_pass_statement, STATE 11814), (sym_break_statement, STATE 11814),
    (sym_continue_statement, STATE 11814), (sym_global_statement, STATE 11814),
    (sym_nonlocal_statement, STATE 11814), (sym_exec_statement, STATE 11814),
    (sym_type_alias_statement, STATE 11814), (sym_parameterized_alias_statement, STATE 11814),
    (sym_pattern, STATE 8086), (sym_tuple_pattern, STATE 8101), (sym_list_pattern, STATE 8101),
    (sym_list_splat_pattern, STATE 6819), (sym_as_pattern, STATE 7969),
    (sym_expression, STATE 9883), (sym_primary_expression, STATE 7326),
    (sym_comptime_expression, STATE 7017), (sym_transfer_expression, STATE 7017),
    (sym_not_operator, STATE 7969), (sym_boolean_operator, STATE 7969),
    (sym_binary_operator, STATE 7017), (sym_unary_operator, STATE 7017),
    (sym_comparison_operator, STATE 7969), (sym_lambda, STATE 7969),
    (sym_assignment, STATE 12425), (sym_augmented_assignment, STATE 12425),
    (sym_pattern_list, STATE 8578), (sym_yield, STATE 12425), (sym_attribute, STATE 6836),
    (sym_subscript, STATE 6838), (sym_call, STATE 6845), (sym_mlir_type, STATE 7017),
    (sym_list, STATE 7017), (sym_set, STATE 7017), (sym_tuple, STATE 7017),
    (sym_dictionary, STATE 7017), (sym_struct_literal, STATE 7017),
    (sym_list_comprehension, STATE 7017), (sym_dictionary_comprehension, STATE 7017),
    (sym_set_comprehension, STATE 7017), (sym_generator_expression, STATE 7017),
    (sym_parenthesized_expression, STATE 7017), (sym_conditional_expression, STATE 7969),
    (sym_concatenated_string, STATE 7017), (sym_string, STATE 6751), (sym_await, STATE 7017),
    (sym_identifier, ACTIONS 9), (anon_sym_import, ACTIONS 11), (anon_sym_from, ACTIONS 13),
    (anon_sym_LPAREN, ACTIONS 15), (anon_sym_STAR, ACTIONS 17), (anon_sym_print, ACTIONS 19),
    (anon_sym_comptime, ACTIONS 335), (anon_sym_assert, ACTIONS 23),
    (anon_sym___comptime_assert, ACTIONS 25), (anon_sym_return, ACTIONS 27),
    (anon_sym_del, ACTIONS 29), (anon_sym_raise, ACTIONS 31), (anon_sym_pass, ACTIONS 33),
    (anon_sym_break, ACTIONS 35), (anon_sym_continue, ACTIONS 37),
    (anon_sym_match, ACTIONS 1596), (anon_sym_async, ACTIONS 73), (anon_sym_LBRACK, ACTIONS 59),
    (anon_sym_LBRACE, ACTIONS 61), (anon_sym_global, ACTIONS 63),
    (anon_sym_nonlocal, ACTIONS 65), (anon_sym_exec, ACTIONS 67), (anon_sym_type, ACTIONS 69),
    (anon_sym_mut, ACTIONS 73), (anon_sym_out, ACTIONS 73), (anon_sym_DASH, ACTIONS 79),
    (anon_sym_PLUS, ACTIONS 79), (anon_sym_ref, ACTIONS 81), (anon_sym_var, ACTIONS 81),
    (anon_sym_not, ACTIONS 83), (anon_sym_TILDE, ACTIONS 79), (anon_sym_lambda, ACTIONS 85),
    (anon_sym_yield, ACTIONS 87), (sym_ellipsis, ACTIONS 89), (anon_sym___mlir_type, ACTIONS 91),
    (sym_integer, ACTIONS 93), (sym_float, ACTIONS 89), (anon_sym_await, ACTIONS 95),
    (sym_true, ACTIONS 93), (sym_false, ACTIONS 93), (sym_none, ACTIONS 93),
    (sym_comment, ACTIONS 3), (sym_line_continuation, ACTIONS 3), (sym__newline, ACTIONS 1686),
    (sym__indent, ACTIONS 1688), (sym_string_start, ACTIONS 97)]"

definition parse_table_1244 :: "(nat \<times> nat) list" where "parse_table_1244 = [
    (sym__simple_statements, STATE 4299), (sym_import_statement, STATE 11814),
    (sym_future_import_statement, STATE 11814), (sym_import_from_statement, STATE 11814),
    (sym_print_statement, STATE 11814), (sym_assert_statement, STATE 11814),
    (sym_comptime_assert_statement, STATE 11814), (sym_expression_statement, STATE 11814),
    (sym_tuple_expression, STATE 12425), (sym_named_expression, STATE 7969),
    (sym__named_expression_lhs, STATE 12752), (sym_return_statement, STATE 11814),
    (sym_delete_statement, STATE 11814), (sym_raise_statement, STATE 11814),
    (sym_pass_statement, STATE 11814), (sym_break_statement, STATE 11814),
    (sym_continue_statement, STATE 11814), (sym_global_statement, STATE 11814),
    (sym_nonlocal_statement, STATE 11814), (sym_exec_statement, STATE 11814),
    (sym_type_alias_statement, STATE 11814), (sym_parameterized_alias_statement, STATE 11814),
    (sym_pattern, STATE 8086), (sym_tuple_pattern, STATE 8101), (sym_list_pattern, STATE 8101),
    (sym_list_splat_pattern, STATE 6819), (sym_as_pattern, STATE 7969),
    (sym_expression, STATE 9883), (sym_primary_expression, STATE 7326),
    (sym_comptime_expression, STATE 7017), (sym_transfer_expression, STATE 7017),
    (sym_not_operator, STATE 7969), (sym_boolean_operator, STATE 7969),
    (sym_binary_operator, STATE 7017), (sym_unary_operator, STATE 7017),
    (sym_comparison_operator, STATE 7969), (sym_lambda, STATE 7969),
    (sym_assignment, STATE 12425), (sym_augmented_assignment, STATE 12425),
    (sym_pattern_list, STATE 8578), (sym_yield, STATE 12425), (sym_attribute, STATE 6836),
    (sym_subscript, STATE 6838), (sym_call, STATE 6845), (sym_mlir_type, STATE 7017),
    (sym_list, STATE 7017), (sym_set, STATE 7017), (sym_tuple, STATE 7017),
    (sym_dictionary, STATE 7017), (sym_struct_literal, STATE 7017),
    (sym_list_comprehension, STATE 7017), (sym_dictionary_comprehension, STATE 7017),
    (sym_set_comprehension, STATE 7017), (sym_generator_expression, STATE 7017),
    (sym_parenthesized_expression, STATE 7017), (sym_conditional_expression, STATE 7969),
    (sym_concatenated_string, STATE 7017), (sym_string, STATE 6751), (sym_await, STATE 7017),
    (sym_identifier, ACTIONS 9), (anon_sym_import, ACTIONS 11), (anon_sym_from, ACTIONS 13),
    (anon_sym_LPAREN, ACTIONS 15), (anon_sym_STAR, ACTIONS 17), (anon_sym_print, ACTIONS 19),
    (anon_sym_comptime, ACTIONS 335), (anon_sym_assert, ACTIONS 23),
    (anon_sym___comptime_assert, ACTIONS 25), (anon_sym_return, ACTIONS 27),
    (anon_sym_del, ACTIONS 29), (anon_sym_raise, ACTIONS 31), (anon_sym_pass, ACTIONS 33),
    (anon_sym_break, ACTIONS 35), (anon_sym_continue, ACTIONS 37),
    (anon_sym_match, ACTIONS 1596), (anon_sym_async, ACTIONS 73), (anon_sym_LBRACK, ACTIONS 59),
    (anon_sym_LBRACE, ACTIONS 61), (anon_sym_global, ACTIONS 63),
    (anon_sym_nonlocal, ACTIONS 65), (anon_sym_exec, ACTIONS 67), (anon_sym_type, ACTIONS 69),
    (anon_sym_mut, ACTIONS 73), (anon_sym_out, ACTIONS 73), (anon_sym_DASH, ACTIONS 79),
    (anon_sym_PLUS, ACTIONS 79), (anon_sym_ref, ACTIONS 81), (anon_sym_var, ACTIONS 81),
    (anon_sym_not, ACTIONS 83), (anon_sym_TILDE, ACTIONS 79), (anon_sym_lambda, ACTIONS 85),
    (anon_sym_yield, ACTIONS 87), (sym_ellipsis, ACTIONS 89), (anon_sym___mlir_type, ACTIONS 91),
    (sym_integer, ACTIONS 93), (sym_float, ACTIONS 89), (anon_sym_await, ACTIONS 95),
    (sym_true, ACTIONS 93), (sym_false, ACTIONS 93), (sym_none, ACTIONS 93),
    (sym_comment, ACTIONS 3), (sym_line_continuation, ACTIONS 3), (sym__newline, ACTIONS 1690),
    (sym__indent, ACTIONS 1692), (sym_string_start, ACTIONS 97)]"

definition parse_table_1245 :: "(nat \<times> nat) list" where "parse_table_1245 = [
    (sym__simple_statements, STATE 4570), (sym_import_statement, STATE 11814),
    (sym_future_import_statement, STATE 11814), (sym_import_from_statement, STATE 11814),
    (sym_print_statement, STATE 11814), (sym_assert_statement, STATE 11814),
    (sym_comptime_assert_statement, STATE 11814), (sym_expression_statement, STATE 11814),
    (sym_tuple_expression, STATE 12425), (sym_named_expression, STATE 7969),
    (sym__named_expression_lhs, STATE 12752), (sym_return_statement, STATE 11814),
    (sym_delete_statement, STATE 11814), (sym_raise_statement, STATE 11814),
    (sym_pass_statement, STATE 11814), (sym_break_statement, STATE 11814),
    (sym_continue_statement, STATE 11814), (sym_global_statement, STATE 11814),
    (sym_nonlocal_statement, STATE 11814), (sym_exec_statement, STATE 11814),
    (sym_type_alias_statement, STATE 11814), (sym_parameterized_alias_statement, STATE 11814),
    (sym_pattern, STATE 8086), (sym_tuple_pattern, STATE 8101), (sym_list_pattern, STATE 8101),
    (sym_list_splat_pattern, STATE 6819), (sym_as_pattern, STATE 7969),
    (sym_expression, STATE 9883), (sym_primary_expression, STATE 7326),
    (sym_comptime_expression, STATE 7017), (sym_transfer_expression, STATE 7017),
    (sym_not_operator, STATE 7969), (sym_boolean_operator, STATE 7969),
    (sym_binary_operator, STATE 7017), (sym_unary_operator, STATE 7017),
    (sym_comparison_operator, STATE 7969), (sym_lambda, STATE 7969),
    (sym_assignment, STATE 12425), (sym_augmented_assignment, STATE 12425),
    (sym_pattern_list, STATE 8578), (sym_yield, STATE 12425), (sym_attribute, STATE 6836),
    (sym_subscript, STATE 6838), (sym_call, STATE 6845), (sym_mlir_type, STATE 7017),
    (sym_list, STATE 7017), (sym_set, STATE 7017), (sym_tuple, STATE 7017),
    (sym_dictionary, STATE 7017), (sym_struct_literal, STATE 7017),
    (sym_list_comprehension, STATE 7017), (sym_dictionary_comprehension, STATE 7017),
    (sym_set_comprehension, STATE 7017), (sym_generator_expression, STATE 7017),
    (sym_parenthesized_expression, STATE 7017), (sym_conditional_expression, STATE 7969),
    (sym_concatenated_string, STATE 7017), (sym_string, STATE 6751), (sym_await, STATE 7017),
    (sym_identifier, ACTIONS 9), (anon_sym_import, ACTIONS 11), (anon_sym_from, ACTIONS 13),
    (anon_sym_LPAREN, ACTIONS 15), (anon_sym_STAR, ACTIONS 17), (anon_sym_print, ACTIONS 19),
    (anon_sym_comptime, ACTIONS 335), (anon_sym_assert, ACTIONS 23),
    (anon_sym___comptime_assert, ACTIONS 25), (anon_sym_return, ACTIONS 27),
    (anon_sym_del, ACTIONS 29), (anon_sym_raise, ACTIONS 31), (anon_sym_pass, ACTIONS 33),
    (anon_sym_break, ACTIONS 35), (anon_sym_continue, ACTIONS 37),
    (anon_sym_match, ACTIONS 1596), (anon_sym_async, ACTIONS 73), (anon_sym_LBRACK, ACTIONS 59),
    (anon_sym_LBRACE, ACTIONS 61), (anon_sym_global, ACTIONS 63),
    (anon_sym_nonlocal, ACTIONS 65), (anon_sym_exec, ACTIONS 67), (anon_sym_type, ACTIONS 69),
    (anon_sym_mut, ACTIONS 73), (anon_sym_out, ACTIONS 73), (anon_sym_DASH, ACTIONS 79),
    (anon_sym_PLUS, ACTIONS 79), (anon_sym_ref, ACTIONS 81), (anon_sym_var, ACTIONS 81),
    (anon_sym_not, ACTIONS 83), (anon_sym_TILDE, ACTIONS 79), (anon_sym_lambda, ACTIONS 85),
    (anon_sym_yield, ACTIONS 87), (sym_ellipsis, ACTIONS 89), (anon_sym___mlir_type, ACTIONS 91),
    (sym_integer, ACTIONS 93), (sym_float, ACTIONS 89), (anon_sym_await, ACTIONS 95),
    (sym_true, ACTIONS 93), (sym_false, ACTIONS 93), (sym_none, ACTIONS 93),
    (sym_comment, ACTIONS 3), (sym_line_continuation, ACTIONS 3), (sym__newline, ACTIONS 1694),
    (sym__indent, ACTIONS 1696), (sym_string_start, ACTIONS 97)]"

definition parse_table_1246 :: "(nat \<times> nat) list" where "parse_table_1246 = [
    (sym__simple_statements, STATE 4572), (sym_import_statement, STATE 11814),
    (sym_future_import_statement, STATE 11814), (sym_import_from_statement, STATE 11814),
    (sym_print_statement, STATE 11814), (sym_assert_statement, STATE 11814),
    (sym_comptime_assert_statement, STATE 11814), (sym_expression_statement, STATE 11814),
    (sym_tuple_expression, STATE 12425), (sym_named_expression, STATE 7969),
    (sym__named_expression_lhs, STATE 12752), (sym_return_statement, STATE 11814),
    (sym_delete_statement, STATE 11814), (sym_raise_statement, STATE 11814),
    (sym_pass_statement, STATE 11814), (sym_break_statement, STATE 11814),
    (sym_continue_statement, STATE 11814), (sym_global_statement, STATE 11814),
    (sym_nonlocal_statement, STATE 11814), (sym_exec_statement, STATE 11814),
    (sym_type_alias_statement, STATE 11814), (sym_parameterized_alias_statement, STATE 11814),
    (sym_pattern, STATE 8086), (sym_tuple_pattern, STATE 8101), (sym_list_pattern, STATE 8101),
    (sym_list_splat_pattern, STATE 6819), (sym_as_pattern, STATE 7969),
    (sym_expression, STATE 9883), (sym_primary_expression, STATE 7326),
    (sym_comptime_expression, STATE 7017), (sym_transfer_expression, STATE 7017),
    (sym_not_operator, STATE 7969), (sym_boolean_operator, STATE 7969),
    (sym_binary_operator, STATE 7017), (sym_unary_operator, STATE 7017),
    (sym_comparison_operator, STATE 7969), (sym_lambda, STATE 7969),
    (sym_assignment, STATE 12425), (sym_augmented_assignment, STATE 12425),
    (sym_pattern_list, STATE 8578), (sym_yield, STATE 12425), (sym_attribute, STATE 6836),
    (sym_subscript, STATE 6838), (sym_call, STATE 6845), (sym_mlir_type, STATE 7017),
    (sym_list, STATE 7017), (sym_set, STATE 7017), (sym_tuple, STATE 7017),
    (sym_dictionary, STATE 7017), (sym_struct_literal, STATE 7017),
    (sym_list_comprehension, STATE 7017), (sym_dictionary_comprehension, STATE 7017),
    (sym_set_comprehension, STATE 7017), (sym_generator_expression, STATE 7017),
    (sym_parenthesized_expression, STATE 7017), (sym_conditional_expression, STATE 7969),
    (sym_concatenated_string, STATE 7017), (sym_string, STATE 6751), (sym_await, STATE 7017),
    (sym_identifier, ACTIONS 9), (anon_sym_import, ACTIONS 11), (anon_sym_from, ACTIONS 13),
    (anon_sym_LPAREN, ACTIONS 15), (anon_sym_STAR, ACTIONS 17), (anon_sym_print, ACTIONS 19),
    (anon_sym_comptime, ACTIONS 335), (anon_sym_assert, ACTIONS 23),
    (anon_sym___comptime_assert, ACTIONS 25), (anon_sym_return, ACTIONS 27),
    (anon_sym_del, ACTIONS 29), (anon_sym_raise, ACTIONS 31), (anon_sym_pass, ACTIONS 33),
    (anon_sym_break, ACTIONS 35), (anon_sym_continue, ACTIONS 37),
    (anon_sym_match, ACTIONS 1596), (anon_sym_async, ACTIONS 73), (anon_sym_LBRACK, ACTIONS 59),
    (anon_sym_LBRACE, ACTIONS 61), (anon_sym_global, ACTIONS 63),
    (anon_sym_nonlocal, ACTIONS 65), (anon_sym_exec, ACTIONS 67), (anon_sym_type, ACTIONS 69),
    (anon_sym_mut, ACTIONS 73), (anon_sym_out, ACTIONS 73), (anon_sym_DASH, ACTIONS 79),
    (anon_sym_PLUS, ACTIONS 79), (anon_sym_ref, ACTIONS 81), (anon_sym_var, ACTIONS 81),
    (anon_sym_not, ACTIONS 83), (anon_sym_TILDE, ACTIONS 79), (anon_sym_lambda, ACTIONS 85),
    (anon_sym_yield, ACTIONS 87), (sym_ellipsis, ACTIONS 89), (anon_sym___mlir_type, ACTIONS 91),
    (sym_integer, ACTIONS 93), (sym_float, ACTIONS 89), (anon_sym_await, ACTIONS 95),
    (sym_true, ACTIONS 93), (sym_false, ACTIONS 93), (sym_none, ACTIONS 93),
    (sym_comment, ACTIONS 3), (sym_line_continuation, ACTIONS 3), (sym__newline, ACTIONS 1698),
    (sym__indent, ACTIONS 1700), (sym_string_start, ACTIONS 97)]"

definition parse_table_1247 :: "(nat \<times> nat) list" where "parse_table_1247 = [
    (sym__simple_statements, STATE 4575), (sym_import_statement, STATE 11814),
    (sym_future_import_statement, STATE 11814), (sym_import_from_statement, STATE 11814),
    (sym_print_statement, STATE 11814), (sym_assert_statement, STATE 11814),
    (sym_comptime_assert_statement, STATE 11814), (sym_expression_statement, STATE 11814),
    (sym_tuple_expression, STATE 12425), (sym_named_expression, STATE 7969),
    (sym__named_expression_lhs, STATE 12752), (sym_return_statement, STATE 11814),
    (sym_delete_statement, STATE 11814), (sym_raise_statement, STATE 11814),
    (sym_pass_statement, STATE 11814), (sym_break_statement, STATE 11814),
    (sym_continue_statement, STATE 11814), (sym_global_statement, STATE 11814),
    (sym_nonlocal_statement, STATE 11814), (sym_exec_statement, STATE 11814),
    (sym_type_alias_statement, STATE 11814), (sym_parameterized_alias_statement, STATE 11814),
    (sym_pattern, STATE 8086), (sym_tuple_pattern, STATE 8101), (sym_list_pattern, STATE 8101),
    (sym_list_splat_pattern, STATE 6819), (sym_as_pattern, STATE 7969),
    (sym_expression, STATE 9883), (sym_primary_expression, STATE 7326),
    (sym_comptime_expression, STATE 7017), (sym_transfer_expression, STATE 7017),
    (sym_not_operator, STATE 7969), (sym_boolean_operator, STATE 7969),
    (sym_binary_operator, STATE 7017), (sym_unary_operator, STATE 7017),
    (sym_comparison_operator, STATE 7969), (sym_lambda, STATE 7969),
    (sym_assignment, STATE 12425), (sym_augmented_assignment, STATE 12425),
    (sym_pattern_list, STATE 8578), (sym_yield, STATE 12425), (sym_attribute, STATE 6836),
    (sym_subscript, STATE 6838), (sym_call, STATE 6845), (sym_mlir_type, STATE 7017),
    (sym_list, STATE 7017), (sym_set, STATE 7017), (sym_tuple, STATE 7017),
    (sym_dictionary, STATE 7017), (sym_struct_literal, STATE 7017),
    (sym_list_comprehension, STATE 7017), (sym_dictionary_comprehension, STATE 7017),
    (sym_set_comprehension, STATE 7017), (sym_generator_expression, STATE 7017),
    (sym_parenthesized_expression, STATE 7017), (sym_conditional_expression, STATE 7969),
    (sym_concatenated_string, STATE 7017), (sym_string, STATE 6751), (sym_await, STATE 7017),
    (sym_identifier, ACTIONS 9), (anon_sym_import, ACTIONS 11), (anon_sym_from, ACTIONS 13),
    (anon_sym_LPAREN, ACTIONS 15), (anon_sym_STAR, ACTIONS 17), (anon_sym_print, ACTIONS 19),
    (anon_sym_comptime, ACTIONS 335), (anon_sym_assert, ACTIONS 23),
    (anon_sym___comptime_assert, ACTIONS 25), (anon_sym_return, ACTIONS 27),
    (anon_sym_del, ACTIONS 29), (anon_sym_raise, ACTIONS 31), (anon_sym_pass, ACTIONS 33),
    (anon_sym_break, ACTIONS 35), (anon_sym_continue, ACTIONS 37),
    (anon_sym_match, ACTIONS 1596), (anon_sym_async, ACTIONS 73), (anon_sym_LBRACK, ACTIONS 59),
    (anon_sym_LBRACE, ACTIONS 61), (anon_sym_global, ACTIONS 63),
    (anon_sym_nonlocal, ACTIONS 65), (anon_sym_exec, ACTIONS 67), (anon_sym_type, ACTIONS 69),
    (anon_sym_mut, ACTIONS 73), (anon_sym_out, ACTIONS 73), (anon_sym_DASH, ACTIONS 79),
    (anon_sym_PLUS, ACTIONS 79), (anon_sym_ref, ACTIONS 81), (anon_sym_var, ACTIONS 81),
    (anon_sym_not, ACTIONS 83), (anon_sym_TILDE, ACTIONS 79), (anon_sym_lambda, ACTIONS 85),
    (anon_sym_yield, ACTIONS 87), (sym_ellipsis, ACTIONS 89), (anon_sym___mlir_type, ACTIONS 91),
    (sym_integer, ACTIONS 93), (sym_float, ACTIONS 89), (anon_sym_await, ACTIONS 95),
    (sym_true, ACTIONS 93), (sym_false, ACTIONS 93), (sym_none, ACTIONS 93),
    (sym_comment, ACTIONS 3), (sym_line_continuation, ACTIONS 3), (sym__newline, ACTIONS 1702),
    (sym__indent, ACTIONS 1704), (sym_string_start, ACTIONS 97)]"

definition parse_table_1248 :: "(nat \<times> nat) list" where "parse_table_1248 = [
    (sym__simple_statements, STATE 5127), (sym_import_statement, STATE 12239),
    (sym_future_import_statement, STATE 12239), (sym_import_from_statement, STATE 12239),
    (sym_print_statement, STATE 12239), (sym_assert_statement, STATE 12239),
    (sym_comptime_assert_statement, STATE 12239), (sym_expression_statement, STATE 12239),
    (sym_tuple_expression, STATE 12425), (sym_named_expression, STATE 7969),
    (sym__named_expression_lhs, STATE 12752), (sym_return_statement, STATE 12239),
    (sym_delete_statement, STATE 12239), (sym_raise_statement, STATE 12239),
    (sym_pass_statement, STATE 12239), (sym_break_statement, STATE 12239),
    (sym_continue_statement, STATE 12239), (sym_global_statement, STATE 12239),
    (sym_nonlocal_statement, STATE 12239), (sym_exec_statement, STATE 12239),
    (sym_type_alias_statement, STATE 12239), (sym_parameterized_alias_statement, STATE 12239),
    (sym_pattern, STATE 8086), (sym_tuple_pattern, STATE 8101), (sym_list_pattern, STATE 8101),
    (sym_list_splat_pattern, STATE 6819), (sym_as_pattern, STATE 7969),
    (sym_expression, STATE 9883), (sym_primary_expression, STATE 7326),
    (sym_comptime_expression, STATE 7017), (sym_transfer_expression, STATE 7017),
    (sym_not_operator, STATE 7969), (sym_boolean_operator, STATE 7969),
    (sym_binary_operator, STATE 7017), (sym_unary_operator, STATE 7017),
    (sym_comparison_operator, STATE 7969), (sym_lambda, STATE 7969),
    (sym_assignment, STATE 12425), (sym_augmented_assignment, STATE 12425),
    (sym_pattern_list, STATE 8578), (sym_yield, STATE 12425), (sym_attribute, STATE 6836),
    (sym_subscript, STATE 6838), (sym_call, STATE 6845), (sym_mlir_type, STATE 7017),
    (sym_list, STATE 7017), (sym_set, STATE 7017), (sym_tuple, STATE 7017),
    (sym_dictionary, STATE 7017), (sym_struct_literal, STATE 7017),
    (sym_list_comprehension, STATE 7017), (sym_dictionary_comprehension, STATE 7017),
    (sym_set_comprehension, STATE 7017), (sym_generator_expression, STATE 7017),
    (sym_parenthesized_expression, STATE 7017), (sym_conditional_expression, STATE 7969),
    (sym_concatenated_string, STATE 7017), (sym_string, STATE 6751), (sym_await, STATE 7017),
    (sym_identifier, ACTIONS 9), (anon_sym_import, ACTIONS 11), (anon_sym_from, ACTIONS 13),
    (anon_sym_LPAREN, ACTIONS 15), (anon_sym_STAR, ACTIONS 17), (anon_sym_print, ACTIONS 19),
    (anon_sym_comptime, ACTIONS 335), (anon_sym_assert, ACTIONS 23),
    (anon_sym___comptime_assert, ACTIONS 25), (anon_sym_return, ACTIONS 27),
    (anon_sym_del, ACTIONS 29), (anon_sym_raise, ACTIONS 31), (anon_sym_pass, ACTIONS 33),
    (anon_sym_break, ACTIONS 35), (anon_sym_continue, ACTIONS 37),
    (anon_sym_match, ACTIONS 1596), (anon_sym_async, ACTIONS 73), (anon_sym_LBRACK, ACTIONS 59),
    (anon_sym_LBRACE, ACTIONS 61), (anon_sym_global, ACTIONS 63),
    (anon_sym_nonlocal, ACTIONS 65), (anon_sym_exec, ACTIONS 67), (anon_sym_type, ACTIONS 69),
    (anon_sym_mut, ACTIONS 73), (anon_sym_out, ACTIONS 73), (anon_sym_DASH, ACTIONS 79),
    (anon_sym_PLUS, ACTIONS 79), (anon_sym_ref, ACTIONS 81), (anon_sym_var, ACTIONS 81),
    (anon_sym_not, ACTIONS 83), (anon_sym_TILDE, ACTIONS 79), (anon_sym_lambda, ACTIONS 85),
    (anon_sym_yield, ACTIONS 87), (sym_ellipsis, ACTIONS 89), (anon_sym___mlir_type, ACTIONS 91),
    (sym_integer, ACTIONS 93), (sym_float, ACTIONS 89), (anon_sym_await, ACTIONS 95),
    (sym_true, ACTIONS 93), (sym_false, ACTIONS 93), (sym_none, ACTIONS 93),
    (sym_comment, ACTIONS 3), (sym_line_continuation, ACTIONS 3), (sym__newline, ACTIONS 1706),
    (sym__indent, ACTIONS 1708), (sym_string_start, ACTIONS 97)]"

definition parse_table_1249 :: "(nat \<times> nat) list" where "parse_table_1249 = [
    (sym__simple_statements, STATE 4197), (sym_import_statement, STATE 11814),
    (sym_future_import_statement, STATE 11814), (sym_import_from_statement, STATE 11814),
    (sym_print_statement, STATE 11814), (sym_assert_statement, STATE 11814),
    (sym_comptime_assert_statement, STATE 11814), (sym_expression_statement, STATE 11814),
    (sym_tuple_expression, STATE 12425), (sym_named_expression, STATE 7969),
    (sym__named_expression_lhs, STATE 12752), (sym_return_statement, STATE 11814),
    (sym_delete_statement, STATE 11814), (sym_raise_statement, STATE 11814),
    (sym_pass_statement, STATE 11814), (sym_break_statement, STATE 11814),
    (sym_continue_statement, STATE 11814), (sym_global_statement, STATE 11814),
    (sym_nonlocal_statement, STATE 11814), (sym_exec_statement, STATE 11814),
    (sym_type_alias_statement, STATE 11814), (sym_parameterized_alias_statement, STATE 11814),
    (sym_pattern, STATE 8086), (sym_tuple_pattern, STATE 8101), (sym_list_pattern, STATE 8101),
    (sym_list_splat_pattern, STATE 6819), (sym_as_pattern, STATE 7969),
    (sym_expression, STATE 9883), (sym_primary_expression, STATE 7326),
    (sym_comptime_expression, STATE 7017), (sym_transfer_expression, STATE 7017),
    (sym_not_operator, STATE 7969), (sym_boolean_operator, STATE 7969),
    (sym_binary_operator, STATE 7017), (sym_unary_operator, STATE 7017),
    (sym_comparison_operator, STATE 7969), (sym_lambda, STATE 7969),
    (sym_assignment, STATE 12425), (sym_augmented_assignment, STATE 12425),
    (sym_pattern_list, STATE 8578), (sym_yield, STATE 12425), (sym_attribute, STATE 6836),
    (sym_subscript, STATE 6838), (sym_call, STATE 6845), (sym_mlir_type, STATE 7017),
    (sym_list, STATE 7017), (sym_set, STATE 7017), (sym_tuple, STATE 7017),
    (sym_dictionary, STATE 7017), (sym_struct_literal, STATE 7017),
    (sym_list_comprehension, STATE 7017), (sym_dictionary_comprehension, STATE 7017),
    (sym_set_comprehension, STATE 7017), (sym_generator_expression, STATE 7017),
    (sym_parenthesized_expression, STATE 7017), (sym_conditional_expression, STATE 7969),
    (sym_concatenated_string, STATE 7017), (sym_string, STATE 6751), (sym_await, STATE 7017),
    (sym_identifier, ACTIONS 9), (anon_sym_import, ACTIONS 11), (anon_sym_from, ACTIONS 13),
    (anon_sym_LPAREN, ACTIONS 15), (anon_sym_STAR, ACTIONS 17), (anon_sym_print, ACTIONS 19),
    (anon_sym_comptime, ACTIONS 335), (anon_sym_assert, ACTIONS 23),
    (anon_sym___comptime_assert, ACTIONS 25), (anon_sym_return, ACTIONS 27),
    (anon_sym_del, ACTIONS 29), (anon_sym_raise, ACTIONS 31), (anon_sym_pass, ACTIONS 33),
    (anon_sym_break, ACTIONS 35), (anon_sym_continue, ACTIONS 37),
    (anon_sym_match, ACTIONS 1596), (anon_sym_async, ACTIONS 73), (anon_sym_LBRACK, ACTIONS 59),
    (anon_sym_LBRACE, ACTIONS 61), (anon_sym_global, ACTIONS 63),
    (anon_sym_nonlocal, ACTIONS 65), (anon_sym_exec, ACTIONS 67), (anon_sym_type, ACTIONS 69),
    (anon_sym_mut, ACTIONS 73), (anon_sym_out, ACTIONS 73), (anon_sym_DASH, ACTIONS 79),
    (anon_sym_PLUS, ACTIONS 79), (anon_sym_ref, ACTIONS 81), (anon_sym_var, ACTIONS 81),
    (anon_sym_not, ACTIONS 83), (anon_sym_TILDE, ACTIONS 79), (anon_sym_lambda, ACTIONS 85),
    (anon_sym_yield, ACTIONS 87), (sym_ellipsis, ACTIONS 89), (anon_sym___mlir_type, ACTIONS 91),
    (sym_integer, ACTIONS 93), (sym_float, ACTIONS 89), (anon_sym_await, ACTIONS 95),
    (sym_true, ACTIONS 93), (sym_false, ACTIONS 93), (sym_none, ACTIONS 93),
    (sym_comment, ACTIONS 3), (sym_line_continuation, ACTIONS 3), (sym__newline, ACTIONS 1710),
    (sym__indent, ACTIONS 1712), (sym_string_start, ACTIONS 97)]"

definition parse_table_1250 :: "(nat \<times> nat) list" where "parse_table_1250 = [
    (sym__simple_statements, STATE 4199), (sym_import_statement, STATE 12225),
    (sym_future_import_statement, STATE 12225), (sym_import_from_statement, STATE 12225),
    (sym_print_statement, STATE 12225), (sym_assert_statement, STATE 12225),
    (sym_comptime_assert_statement, STATE 12225), (sym_expression_statement, STATE 12225),
    (sym_tuple_expression, STATE 12425), (sym_named_expression, STATE 7969),
    (sym__named_expression_lhs, STATE 12752), (sym_return_statement, STATE 12225),
    (sym_delete_statement, STATE 12225), (sym_raise_statement, STATE 12225),
    (sym_pass_statement, STATE 12225), (sym_break_statement, STATE 12225),
    (sym_continue_statement, STATE 12225), (sym_global_statement, STATE 12225),
    (sym_nonlocal_statement, STATE 12225), (sym_exec_statement, STATE 12225),
    (sym_type_alias_statement, STATE 12225), (sym_parameterized_alias_statement, STATE 12225),
    (sym_pattern, STATE 8086), (sym_tuple_pattern, STATE 8101), (sym_list_pattern, STATE 8101),
    (sym_list_splat_pattern, STATE 6819), (sym_as_pattern, STATE 7969),
    (sym_expression, STATE 9883), (sym_primary_expression, STATE 7326),
    (sym_comptime_expression, STATE 7017), (sym_transfer_expression, STATE 7017),
    (sym_not_operator, STATE 7969), (sym_boolean_operator, STATE 7969),
    (sym_binary_operator, STATE 7017), (sym_unary_operator, STATE 7017),
    (sym_comparison_operator, STATE 7969), (sym_lambda, STATE 7969),
    (sym_assignment, STATE 12425), (sym_augmented_assignment, STATE 12425),
    (sym_pattern_list, STATE 8578), (sym_yield, STATE 12425), (sym_attribute, STATE 6836),
    (sym_subscript, STATE 6838), (sym_call, STATE 6845), (sym_mlir_type, STATE 7017),
    (sym_list, STATE 7017), (sym_set, STATE 7017), (sym_tuple, STATE 7017),
    (sym_dictionary, STATE 7017), (sym_struct_literal, STATE 7017),
    (sym_list_comprehension, STATE 7017), (sym_dictionary_comprehension, STATE 7017),
    (sym_set_comprehension, STATE 7017), (sym_generator_expression, STATE 7017),
    (sym_parenthesized_expression, STATE 7017), (sym_conditional_expression, STATE 7969),
    (sym_concatenated_string, STATE 7017), (sym_string, STATE 6751), (sym_await, STATE 7017),
    (sym_identifier, ACTIONS 9), (anon_sym_import, ACTIONS 11), (anon_sym_from, ACTIONS 13),
    (anon_sym_LPAREN, ACTIONS 15), (anon_sym_STAR, ACTIONS 17), (anon_sym_print, ACTIONS 19),
    (anon_sym_comptime, ACTIONS 335), (anon_sym_assert, ACTIONS 23),
    (anon_sym___comptime_assert, ACTIONS 25), (anon_sym_return, ACTIONS 27),
    (anon_sym_del, ACTIONS 29), (anon_sym_raise, ACTIONS 31), (anon_sym_pass, ACTIONS 33),
    (anon_sym_break, ACTIONS 35), (anon_sym_continue, ACTIONS 37),
    (anon_sym_match, ACTIONS 1596), (anon_sym_async, ACTIONS 73), (anon_sym_LBRACK, ACTIONS 59),
    (anon_sym_LBRACE, ACTIONS 61), (anon_sym_global, ACTIONS 63),
    (anon_sym_nonlocal, ACTIONS 65), (anon_sym_exec, ACTIONS 67), (anon_sym_type, ACTIONS 69),
    (anon_sym_mut, ACTIONS 73), (anon_sym_out, ACTIONS 73), (anon_sym_DASH, ACTIONS 79),
    (anon_sym_PLUS, ACTIONS 79), (anon_sym_ref, ACTIONS 81), (anon_sym_var, ACTIONS 81),
    (anon_sym_not, ACTIONS 83), (anon_sym_TILDE, ACTIONS 79), (anon_sym_lambda, ACTIONS 85),
    (anon_sym_yield, ACTIONS 87), (sym_ellipsis, ACTIONS 89), (anon_sym___mlir_type, ACTIONS 91),
    (sym_integer, ACTIONS 93), (sym_float, ACTIONS 89), (anon_sym_await, ACTIONS 95),
    (sym_true, ACTIONS 93), (sym_false, ACTIONS 93), (sym_none, ACTIONS 93),
    (sym_comment, ACTIONS 3), (sym_line_continuation, ACTIONS 3), (sym__newline, ACTIONS 1714),
    (sym__indent, ACTIONS 1716), (sym_string_start, ACTIONS 97)]"

definition parse_table_1251 :: "(nat \<times> nat) list" where "parse_table_1251 = [
    (sym__simple_statements, STATE 12360), (sym_import_statement, STATE 12168),
    (sym_future_import_statement, STATE 12168), (sym_import_from_statement, STATE 12168),
    (sym_print_statement, STATE 12168), (sym_assert_statement, STATE 12168),
    (sym_comptime_assert_statement, STATE 12168), (sym_expression_statement, STATE 12168),
    (sym_tuple_expression, STATE 12425), (sym_named_expression, STATE 7969),
    (sym__named_expression_lhs, STATE 12752), (sym_return_statement, STATE 12168),
    (sym_delete_statement, STATE 12168), (sym_raise_statement, STATE 12168),
    (sym_pass_statement, STATE 12168), (sym_break_statement, STATE 12168),
    (sym_continue_statement, STATE 12168), (sym_global_statement, STATE 12168),
    (sym_nonlocal_statement, STATE 12168), (sym_exec_statement, STATE 12168),
    (sym_type_alias_statement, STATE 12168), (sym_parameterized_alias_statement, STATE 12168),
    (sym_pattern, STATE 8086), (sym_tuple_pattern, STATE 8101), (sym_list_pattern, STATE 8101),
    (sym_list_splat_pattern, STATE 6819), (sym_as_pattern, STATE 7969),
    (sym_expression, STATE 9883), (sym_primary_expression, STATE 7326),
    (sym_comptime_expression, STATE 7017), (sym_transfer_expression, STATE 7017),
    (sym_not_operator, STATE 7969), (sym_boolean_operator, STATE 7969),
    (sym_binary_operator, STATE 7017), (sym_unary_operator, STATE 7017),
    (sym_comparison_operator, STATE 7969), (sym_lambda, STATE 7969),
    (sym_assignment, STATE 12425), (sym_augmented_assignment, STATE 12425),
    (sym_pattern_list, STATE 8578), (sym_yield, STATE 12425), (sym_attribute, STATE 6836),
    (sym_subscript, STATE 6838), (sym_call, STATE 6845), (sym_mlir_type, STATE 7017),
    (sym_list, STATE 7017), (sym_set, STATE 7017), (sym_tuple, STATE 7017),
    (sym_dictionary, STATE 7017), (sym_struct_literal, STATE 7017),
    (sym_list_comprehension, STATE 7017), (sym_dictionary_comprehension, STATE 7017),
    (sym_set_comprehension, STATE 7017), (sym_generator_expression, STATE 7017),
    (sym_parenthesized_expression, STATE 7017), (sym_conditional_expression, STATE 7969),
    (sym_concatenated_string, STATE 7017), (sym_string, STATE 6751), (sym_await, STATE 7017),
    (sym_identifier, ACTIONS 9), (anon_sym_import, ACTIONS 11), (anon_sym_from, ACTIONS 13),
    (anon_sym_LPAREN, ACTIONS 15), (anon_sym_STAR, ACTIONS 17), (anon_sym_print, ACTIONS 19),
    (anon_sym_comptime, ACTIONS 335), (anon_sym_assert, ACTIONS 23),
    (anon_sym___comptime_assert, ACTIONS 25), (anon_sym_return, ACTIONS 27),
    (anon_sym_del, ACTIONS 29), (anon_sym_raise, ACTIONS 31), (anon_sym_pass, ACTIONS 33),
    (anon_sym_break, ACTIONS 35), (anon_sym_continue, ACTIONS 37),
    (anon_sym_match, ACTIONS 1596), (anon_sym_async, ACTIONS 73), (anon_sym_LBRACK, ACTIONS 59),
    (anon_sym_LBRACE, ACTIONS 61), (anon_sym_global, ACTIONS 63),
    (anon_sym_nonlocal, ACTIONS 65), (anon_sym_exec, ACTIONS 67), (anon_sym_type, ACTIONS 69),
    (anon_sym_mut, ACTIONS 73), (anon_sym_out, ACTIONS 73), (anon_sym_DASH, ACTIONS 79),
    (anon_sym_PLUS, ACTIONS 79), (anon_sym_ref, ACTIONS 81), (anon_sym_var, ACTIONS 81),
    (anon_sym_not, ACTIONS 83), (anon_sym_TILDE, ACTIONS 79), (anon_sym_lambda, ACTIONS 85),
    (anon_sym_yield, ACTIONS 87), (sym_ellipsis, ACTIONS 89), (anon_sym___mlir_type, ACTIONS 91),
    (sym_integer, ACTIONS 93), (sym_float, ACTIONS 89), (anon_sym_await, ACTIONS 95),
    (sym_true, ACTIONS 93), (sym_false, ACTIONS 93), (sym_none, ACTIONS 93),
    (sym_comment, ACTIONS 3), (sym_line_continuation, ACTIONS 3), (sym__newline, ACTIONS 1718),
    (sym__indent, ACTIONS 1720), (sym_string_start, ACTIONS 97)]"

definition parse_table_1252 :: "(nat \<times> nat) list" where "parse_table_1252 = [
    (sym__simple_statements, STATE 4674), (sym_import_statement, STATE 12239),
    (sym_future_import_statement, STATE 12239), (sym_import_from_statement, STATE 12239),
    (sym_print_statement, STATE 12239), (sym_assert_statement, STATE 12239),
    (sym_comptime_assert_statement, STATE 12239), (sym_expression_statement, STATE 12239),
    (sym_tuple_expression, STATE 12425), (sym_named_expression, STATE 7969),
    (sym__named_expression_lhs, STATE 12752), (sym_return_statement, STATE 12239),
    (sym_delete_statement, STATE 12239), (sym_raise_statement, STATE 12239),
    (sym_pass_statement, STATE 12239), (sym_break_statement, STATE 12239),
    (sym_continue_statement, STATE 12239), (sym_global_statement, STATE 12239),
    (sym_nonlocal_statement, STATE 12239), (sym_exec_statement, STATE 12239),
    (sym_type_alias_statement, STATE 12239), (sym_parameterized_alias_statement, STATE 12239),
    (sym_pattern, STATE 8086), (sym_tuple_pattern, STATE 8101), (sym_list_pattern, STATE 8101),
    (sym_list_splat_pattern, STATE 6819), (sym_as_pattern, STATE 7969),
    (sym_expression, STATE 9883), (sym_primary_expression, STATE 7326),
    (sym_comptime_expression, STATE 7017), (sym_transfer_expression, STATE 7017),
    (sym_not_operator, STATE 7969), (sym_boolean_operator, STATE 7969),
    (sym_binary_operator, STATE 7017), (sym_unary_operator, STATE 7017),
    (sym_comparison_operator, STATE 7969), (sym_lambda, STATE 7969),
    (sym_assignment, STATE 12425), (sym_augmented_assignment, STATE 12425),
    (sym_pattern_list, STATE 8578), (sym_yield, STATE 12425), (sym_attribute, STATE 6836),
    (sym_subscript, STATE 6838), (sym_call, STATE 6845), (sym_mlir_type, STATE 7017),
    (sym_list, STATE 7017), (sym_set, STATE 7017), (sym_tuple, STATE 7017),
    (sym_dictionary, STATE 7017), (sym_struct_literal, STATE 7017),
    (sym_list_comprehension, STATE 7017), (sym_dictionary_comprehension, STATE 7017),
    (sym_set_comprehension, STATE 7017), (sym_generator_expression, STATE 7017),
    (sym_parenthesized_expression, STATE 7017), (sym_conditional_expression, STATE 7969),
    (sym_concatenated_string, STATE 7017), (sym_string, STATE 6751), (sym_await, STATE 7017),
    (sym_identifier, ACTIONS 9), (anon_sym_import, ACTIONS 11), (anon_sym_from, ACTIONS 13),
    (anon_sym_LPAREN, ACTIONS 15), (anon_sym_STAR, ACTIONS 17), (anon_sym_print, ACTIONS 19),
    (anon_sym_comptime, ACTIONS 335), (anon_sym_assert, ACTIONS 23),
    (anon_sym___comptime_assert, ACTIONS 25), (anon_sym_return, ACTIONS 27),
    (anon_sym_del, ACTIONS 29), (anon_sym_raise, ACTIONS 31), (anon_sym_pass, ACTIONS 33),
    (anon_sym_break, ACTIONS 35), (anon_sym_continue, ACTIONS 37),
    (anon_sym_match, ACTIONS 1596), (anon_sym_async, ACTIONS 73), (anon_sym_LBRACK, ACTIONS 59),
    (anon_sym_LBRACE, ACTIONS 61), (anon_sym_global, ACTIONS 63),
    (anon_sym_nonlocal, ACTIONS 65), (anon_sym_exec, ACTIONS 67), (anon_sym_type, ACTIONS 69),
    (anon_sym_mut, ACTIONS 73), (anon_sym_out, ACTIONS 73), (anon_sym_DASH, ACTIONS 79),
    (anon_sym_PLUS, ACTIONS 79), (anon_sym_ref, ACTIONS 81), (anon_sym_var, ACTIONS 81),
    (anon_sym_not, ACTIONS 83), (anon_sym_TILDE, ACTIONS 79), (anon_sym_lambda, ACTIONS 85),
    (anon_sym_yield, ACTIONS 87), (sym_ellipsis, ACTIONS 89), (anon_sym___mlir_type, ACTIONS 91),
    (sym_integer, ACTIONS 93), (sym_float, ACTIONS 89), (anon_sym_await, ACTIONS 95),
    (sym_true, ACTIONS 93), (sym_false, ACTIONS 93), (sym_none, ACTIONS 93),
    (sym_comment, ACTIONS 3), (sym_line_continuation, ACTIONS 3), (sym__newline, ACTIONS 1722),
    (sym__indent, ACTIONS 1724), (sym_string_start, ACTIONS 97)]"

definition parse_table_1253 :: "(nat \<times> nat) list" where "parse_table_1253 = [
    (sym__simple_statements, STATE 4585), (sym_import_statement, STATE 11814),
    (sym_future_import_statement, STATE 11814), (sym_import_from_statement, STATE 11814),
    (sym_print_statement, STATE 11814), (sym_assert_statement, STATE 11814),
    (sym_comptime_assert_statement, STATE 11814), (sym_expression_statement, STATE 11814),
    (sym_tuple_expression, STATE 12425), (sym_named_expression, STATE 7969),
    (sym__named_expression_lhs, STATE 12752), (sym_return_statement, STATE 11814),
    (sym_delete_statement, STATE 11814), (sym_raise_statement, STATE 11814),
    (sym_pass_statement, STATE 11814), (sym_break_statement, STATE 11814),
    (sym_continue_statement, STATE 11814), (sym_global_statement, STATE 11814),
    (sym_nonlocal_statement, STATE 11814), (sym_exec_statement, STATE 11814),
    (sym_type_alias_statement, STATE 11814), (sym_parameterized_alias_statement, STATE 11814),
    (sym_pattern, STATE 8086), (sym_tuple_pattern, STATE 8101), (sym_list_pattern, STATE 8101),
    (sym_list_splat_pattern, STATE 6819), (sym_as_pattern, STATE 7969),
    (sym_expression, STATE 9883), (sym_primary_expression, STATE 7326),
    (sym_comptime_expression, STATE 7017), (sym_transfer_expression, STATE 7017),
    (sym_not_operator, STATE 7969), (sym_boolean_operator, STATE 7969),
    (sym_binary_operator, STATE 7017), (sym_unary_operator, STATE 7017),
    (sym_comparison_operator, STATE 7969), (sym_lambda, STATE 7969),
    (sym_assignment, STATE 12425), (sym_augmented_assignment, STATE 12425),
    (sym_pattern_list, STATE 8578), (sym_yield, STATE 12425), (sym_attribute, STATE 6836),
    (sym_subscript, STATE 6838), (sym_call, STATE 6845), (sym_mlir_type, STATE 7017),
    (sym_list, STATE 7017), (sym_set, STATE 7017), (sym_tuple, STATE 7017),
    (sym_dictionary, STATE 7017), (sym_struct_literal, STATE 7017),
    (sym_list_comprehension, STATE 7017), (sym_dictionary_comprehension, STATE 7017),
    (sym_set_comprehension, STATE 7017), (sym_generator_expression, STATE 7017),
    (sym_parenthesized_expression, STATE 7017), (sym_conditional_expression, STATE 7969),
    (sym_concatenated_string, STATE 7017), (sym_string, STATE 6751), (sym_await, STATE 7017),
    (sym_identifier, ACTIONS 9), (anon_sym_import, ACTIONS 11), (anon_sym_from, ACTIONS 13),
    (anon_sym_LPAREN, ACTIONS 15), (anon_sym_STAR, ACTIONS 17), (anon_sym_print, ACTIONS 19),
    (anon_sym_comptime, ACTIONS 335), (anon_sym_assert, ACTIONS 23),
    (anon_sym___comptime_assert, ACTIONS 25), (anon_sym_return, ACTIONS 27),
    (anon_sym_del, ACTIONS 29), (anon_sym_raise, ACTIONS 31), (anon_sym_pass, ACTIONS 33),
    (anon_sym_break, ACTIONS 35), (anon_sym_continue, ACTIONS 37),
    (anon_sym_match, ACTIONS 1596), (anon_sym_async, ACTIONS 73), (anon_sym_LBRACK, ACTIONS 59),
    (anon_sym_LBRACE, ACTIONS 61), (anon_sym_global, ACTIONS 63),
    (anon_sym_nonlocal, ACTIONS 65), (anon_sym_exec, ACTIONS 67), (anon_sym_type, ACTIONS 69),
    (anon_sym_mut, ACTIONS 73), (anon_sym_out, ACTIONS 73), (anon_sym_DASH, ACTIONS 79),
    (anon_sym_PLUS, ACTIONS 79), (anon_sym_ref, ACTIONS 81), (anon_sym_var, ACTIONS 81),
    (anon_sym_not, ACTIONS 83), (anon_sym_TILDE, ACTIONS 79), (anon_sym_lambda, ACTIONS 85),
    (anon_sym_yield, ACTIONS 87), (sym_ellipsis, ACTIONS 89), (anon_sym___mlir_type, ACTIONS 91),
    (sym_integer, ACTIONS 93), (sym_float, ACTIONS 89), (anon_sym_await, ACTIONS 95),
    (sym_true, ACTIONS 93), (sym_false, ACTIONS 93), (sym_none, ACTIONS 93),
    (sym_comment, ACTIONS 3), (sym_line_continuation, ACTIONS 3), (sym__newline, ACTIONS 1726),
    (sym__indent, ACTIONS 1728), (sym_string_start, ACTIONS 97)]"

definition parse_table_1254 :: "(nat \<times> nat) list" where "parse_table_1254 = [
    (sym__simple_statements, STATE 5137), (sym_import_statement, STATE 12239),
    (sym_future_import_statement, STATE 12239), (sym_import_from_statement, STATE 12239),
    (sym_print_statement, STATE 12239), (sym_assert_statement, STATE 12239),
    (sym_comptime_assert_statement, STATE 12239), (sym_expression_statement, STATE 12239),
    (sym_tuple_expression, STATE 12425), (sym_named_expression, STATE 7969),
    (sym__named_expression_lhs, STATE 12752), (sym_return_statement, STATE 12239),
    (sym_delete_statement, STATE 12239), (sym_raise_statement, STATE 12239),
    (sym_pass_statement, STATE 12239), (sym_break_statement, STATE 12239),
    (sym_continue_statement, STATE 12239), (sym_global_statement, STATE 12239),
    (sym_nonlocal_statement, STATE 12239), (sym_exec_statement, STATE 12239),
    (sym_type_alias_statement, STATE 12239), (sym_parameterized_alias_statement, STATE 12239),
    (sym_pattern, STATE 8086), (sym_tuple_pattern, STATE 8101), (sym_list_pattern, STATE 8101),
    (sym_list_splat_pattern, STATE 6819), (sym_as_pattern, STATE 7969),
    (sym_expression, STATE 9883), (sym_primary_expression, STATE 7326),
    (sym_comptime_expression, STATE 7017), (sym_transfer_expression, STATE 7017),
    (sym_not_operator, STATE 7969), (sym_boolean_operator, STATE 7969),
    (sym_binary_operator, STATE 7017), (sym_unary_operator, STATE 7017),
    (sym_comparison_operator, STATE 7969), (sym_lambda, STATE 7969),
    (sym_assignment, STATE 12425), (sym_augmented_assignment, STATE 12425),
    (sym_pattern_list, STATE 8578), (sym_yield, STATE 12425), (sym_attribute, STATE 6836),
    (sym_subscript, STATE 6838), (sym_call, STATE 6845), (sym_mlir_type, STATE 7017),
    (sym_list, STATE 7017), (sym_set, STATE 7017), (sym_tuple, STATE 7017),
    (sym_dictionary, STATE 7017), (sym_struct_literal, STATE 7017),
    (sym_list_comprehension, STATE 7017), (sym_dictionary_comprehension, STATE 7017),
    (sym_set_comprehension, STATE 7017), (sym_generator_expression, STATE 7017),
    (sym_parenthesized_expression, STATE 7017), (sym_conditional_expression, STATE 7969),
    (sym_concatenated_string, STATE 7017), (sym_string, STATE 6751), (sym_await, STATE 7017),
    (sym_identifier, ACTIONS 9), (anon_sym_import, ACTIONS 11), (anon_sym_from, ACTIONS 13),
    (anon_sym_LPAREN, ACTIONS 15), (anon_sym_STAR, ACTIONS 17), (anon_sym_print, ACTIONS 19),
    (anon_sym_comptime, ACTIONS 335), (anon_sym_assert, ACTIONS 23),
    (anon_sym___comptime_assert, ACTIONS 25), (anon_sym_return, ACTIONS 27),
    (anon_sym_del, ACTIONS 29), (anon_sym_raise, ACTIONS 31), (anon_sym_pass, ACTIONS 33),
    (anon_sym_break, ACTIONS 35), (anon_sym_continue, ACTIONS 37),
    (anon_sym_match, ACTIONS 1596), (anon_sym_async, ACTIONS 73), (anon_sym_LBRACK, ACTIONS 59),
    (anon_sym_LBRACE, ACTIONS 61), (anon_sym_global, ACTIONS 63),
    (anon_sym_nonlocal, ACTIONS 65), (anon_sym_exec, ACTIONS 67), (anon_sym_type, ACTIONS 69),
    (anon_sym_mut, ACTIONS 73), (anon_sym_out, ACTIONS 73), (anon_sym_DASH, ACTIONS 79),
    (anon_sym_PLUS, ACTIONS 79), (anon_sym_ref, ACTIONS 81), (anon_sym_var, ACTIONS 81),
    (anon_sym_not, ACTIONS 83), (anon_sym_TILDE, ACTIONS 79), (anon_sym_lambda, ACTIONS 85),
    (anon_sym_yield, ACTIONS 87), (sym_ellipsis, ACTIONS 89), (anon_sym___mlir_type, ACTIONS 91),
    (sym_integer, ACTIONS 93), (sym_float, ACTIONS 89), (anon_sym_await, ACTIONS 95),
    (sym_true, ACTIONS 93), (sym_false, ACTIONS 93), (sym_none, ACTIONS 93),
    (sym_comment, ACTIONS 3), (sym_line_continuation, ACTIONS 3), (sym__newline, ACTIONS 1730),
    (sym__indent, ACTIONS 1732), (sym_string_start, ACTIONS 97)]"

definition parse_table_1255 :: "(nat \<times> nat) list" where "parse_table_1255 = [
    (sym__simple_statements, STATE 4590), (sym_import_statement, STATE 11814),
    (sym_future_import_statement, STATE 11814), (sym_import_from_statement, STATE 11814),
    (sym_print_statement, STATE 11814), (sym_assert_statement, STATE 11814),
    (sym_comptime_assert_statement, STATE 11814), (sym_expression_statement, STATE 11814),
    (sym_tuple_expression, STATE 12425), (sym_named_expression, STATE 7969),
    (sym__named_expression_lhs, STATE 12752), (sym_return_statement, STATE 11814),
    (sym_delete_statement, STATE 11814), (sym_raise_statement, STATE 11814),
    (sym_pass_statement, STATE 11814), (sym_break_statement, STATE 11814),
    (sym_continue_statement, STATE 11814), (sym_global_statement, STATE 11814),
    (sym_nonlocal_statement, STATE 11814), (sym_exec_statement, STATE 11814),
    (sym_type_alias_statement, STATE 11814), (sym_parameterized_alias_statement, STATE 11814),
    (sym_pattern, STATE 8086), (sym_tuple_pattern, STATE 8101), (sym_list_pattern, STATE 8101),
    (sym_list_splat_pattern, STATE 6819), (sym_as_pattern, STATE 7969),
    (sym_expression, STATE 9883), (sym_primary_expression, STATE 7326),
    (sym_comptime_expression, STATE 7017), (sym_transfer_expression, STATE 7017),
    (sym_not_operator, STATE 7969), (sym_boolean_operator, STATE 7969),
    (sym_binary_operator, STATE 7017), (sym_unary_operator, STATE 7017),
    (sym_comparison_operator, STATE 7969), (sym_lambda, STATE 7969),
    (sym_assignment, STATE 12425), (sym_augmented_assignment, STATE 12425),
    (sym_pattern_list, STATE 8578), (sym_yield, STATE 12425), (sym_attribute, STATE 6836),
    (sym_subscript, STATE 6838), (sym_call, STATE 6845), (sym_mlir_type, STATE 7017),
    (sym_list, STATE 7017), (sym_set, STATE 7017), (sym_tuple, STATE 7017),
    (sym_dictionary, STATE 7017), (sym_struct_literal, STATE 7017),
    (sym_list_comprehension, STATE 7017), (sym_dictionary_comprehension, STATE 7017),
    (sym_set_comprehension, STATE 7017), (sym_generator_expression, STATE 7017),
    (sym_parenthesized_expression, STATE 7017), (sym_conditional_expression, STATE 7969),
    (sym_concatenated_string, STATE 7017), (sym_string, STATE 6751), (sym_await, STATE 7017),
    (sym_identifier, ACTIONS 9), (anon_sym_import, ACTIONS 11), (anon_sym_from, ACTIONS 13),
    (anon_sym_LPAREN, ACTIONS 15), (anon_sym_STAR, ACTIONS 17), (anon_sym_print, ACTIONS 19),
    (anon_sym_comptime, ACTIONS 335), (anon_sym_assert, ACTIONS 23),
    (anon_sym___comptime_assert, ACTIONS 25), (anon_sym_return, ACTIONS 27),
    (anon_sym_del, ACTIONS 29), (anon_sym_raise, ACTIONS 31), (anon_sym_pass, ACTIONS 33),
    (anon_sym_break, ACTIONS 35), (anon_sym_continue, ACTIONS 37),
    (anon_sym_match, ACTIONS 1596), (anon_sym_async, ACTIONS 73), (anon_sym_LBRACK, ACTIONS 59),
    (anon_sym_LBRACE, ACTIONS 61), (anon_sym_global, ACTIONS 63),
    (anon_sym_nonlocal, ACTIONS 65), (anon_sym_exec, ACTIONS 67), (anon_sym_type, ACTIONS 69),
    (anon_sym_mut, ACTIONS 73), (anon_sym_out, ACTIONS 73), (anon_sym_DASH, ACTIONS 79),
    (anon_sym_PLUS, ACTIONS 79), (anon_sym_ref, ACTIONS 81), (anon_sym_var, ACTIONS 81),
    (anon_sym_not, ACTIONS 83), (anon_sym_TILDE, ACTIONS 79), (anon_sym_lambda, ACTIONS 85),
    (anon_sym_yield, ACTIONS 87), (sym_ellipsis, ACTIONS 89), (anon_sym___mlir_type, ACTIONS 91),
    (sym_integer, ACTIONS 93), (sym_float, ACTIONS 89), (anon_sym_await, ACTIONS 95),
    (sym_true, ACTIONS 93), (sym_false, ACTIONS 93), (sym_none, ACTIONS 93),
    (sym_comment, ACTIONS 3), (sym_line_continuation, ACTIONS 3), (sym__newline, ACTIONS 1734),
    (sym__indent, ACTIONS 1736), (sym_string_start, ACTIONS 97)]"

definition parse_table_1256 :: "(nat \<times> nat) list" where "parse_table_1256 = [
    (sym__simple_statements, STATE 4593), (sym_import_statement, STATE 11814),
    (sym_future_import_statement, STATE 11814), (sym_import_from_statement, STATE 11814),
    (sym_print_statement, STATE 11814), (sym_assert_statement, STATE 11814),
    (sym_comptime_assert_statement, STATE 11814), (sym_expression_statement, STATE 11814),
    (sym_tuple_expression, STATE 12425), (sym_named_expression, STATE 7969),
    (sym__named_expression_lhs, STATE 12752), (sym_return_statement, STATE 11814),
    (sym_delete_statement, STATE 11814), (sym_raise_statement, STATE 11814),
    (sym_pass_statement, STATE 11814), (sym_break_statement, STATE 11814),
    (sym_continue_statement, STATE 11814), (sym_global_statement, STATE 11814),
    (sym_nonlocal_statement, STATE 11814), (sym_exec_statement, STATE 11814),
    (sym_type_alias_statement, STATE 11814), (sym_parameterized_alias_statement, STATE 11814),
    (sym_pattern, STATE 8086), (sym_tuple_pattern, STATE 8101), (sym_list_pattern, STATE 8101),
    (sym_list_splat_pattern, STATE 6819), (sym_as_pattern, STATE 7969),
    (sym_expression, STATE 9883), (sym_primary_expression, STATE 7326),
    (sym_comptime_expression, STATE 7017), (sym_transfer_expression, STATE 7017),
    (sym_not_operator, STATE 7969), (sym_boolean_operator, STATE 7969),
    (sym_binary_operator, STATE 7017), (sym_unary_operator, STATE 7017),
    (sym_comparison_operator, STATE 7969), (sym_lambda, STATE 7969),
    (sym_assignment, STATE 12425), (sym_augmented_assignment, STATE 12425),
    (sym_pattern_list, STATE 8578), (sym_yield, STATE 12425), (sym_attribute, STATE 6836),
    (sym_subscript, STATE 6838), (sym_call, STATE 6845), (sym_mlir_type, STATE 7017),
    (sym_list, STATE 7017), (sym_set, STATE 7017), (sym_tuple, STATE 7017),
    (sym_dictionary, STATE 7017), (sym_struct_literal, STATE 7017),
    (sym_list_comprehension, STATE 7017), (sym_dictionary_comprehension, STATE 7017),
    (sym_set_comprehension, STATE 7017), (sym_generator_expression, STATE 7017),
    (sym_parenthesized_expression, STATE 7017), (sym_conditional_expression, STATE 7969),
    (sym_concatenated_string, STATE 7017), (sym_string, STATE 6751), (sym_await, STATE 7017),
    (sym_identifier, ACTIONS 9), (anon_sym_import, ACTIONS 11), (anon_sym_from, ACTIONS 13),
    (anon_sym_LPAREN, ACTIONS 15), (anon_sym_STAR, ACTIONS 17), (anon_sym_print, ACTIONS 19),
    (anon_sym_comptime, ACTIONS 335), (anon_sym_assert, ACTIONS 23),
    (anon_sym___comptime_assert, ACTIONS 25), (anon_sym_return, ACTIONS 27),
    (anon_sym_del, ACTIONS 29), (anon_sym_raise, ACTIONS 31), (anon_sym_pass, ACTIONS 33),
    (anon_sym_break, ACTIONS 35), (anon_sym_continue, ACTIONS 37),
    (anon_sym_match, ACTIONS 1596), (anon_sym_async, ACTIONS 73), (anon_sym_LBRACK, ACTIONS 59),
    (anon_sym_LBRACE, ACTIONS 61), (anon_sym_global, ACTIONS 63),
    (anon_sym_nonlocal, ACTIONS 65), (anon_sym_exec, ACTIONS 67), (anon_sym_type, ACTIONS 69),
    (anon_sym_mut, ACTIONS 73), (anon_sym_out, ACTIONS 73), (anon_sym_DASH, ACTIONS 79),
    (anon_sym_PLUS, ACTIONS 79), (anon_sym_ref, ACTIONS 81), (anon_sym_var, ACTIONS 81),
    (anon_sym_not, ACTIONS 83), (anon_sym_TILDE, ACTIONS 79), (anon_sym_lambda, ACTIONS 85),
    (anon_sym_yield, ACTIONS 87), (sym_ellipsis, ACTIONS 89), (anon_sym___mlir_type, ACTIONS 91),
    (sym_integer, ACTIONS 93), (sym_float, ACTIONS 89), (anon_sym_await, ACTIONS 95),
    (sym_true, ACTIONS 93), (sym_false, ACTIONS 93), (sym_none, ACTIONS 93),
    (sym_comment, ACTIONS 3), (sym_line_continuation, ACTIONS 3), (sym__newline, ACTIONS 1738),
    (sym__indent, ACTIONS 1740), (sym_string_start, ACTIONS 97)]"

definition parse_table_1257 :: "(nat \<times> nat) list" where "parse_table_1257 = [
    (sym__simple_statements, STATE 4596), (sym_import_statement, STATE 11814),
    (sym_future_import_statement, STATE 11814), (sym_import_from_statement, STATE 11814),
    (sym_print_statement, STATE 11814), (sym_assert_statement, STATE 11814),
    (sym_comptime_assert_statement, STATE 11814), (sym_expression_statement, STATE 11814),
    (sym_tuple_expression, STATE 12425), (sym_named_expression, STATE 7969),
    (sym__named_expression_lhs, STATE 12752), (sym_return_statement, STATE 11814),
    (sym_delete_statement, STATE 11814), (sym_raise_statement, STATE 11814),
    (sym_pass_statement, STATE 11814), (sym_break_statement, STATE 11814),
    (sym_continue_statement, STATE 11814), (sym_global_statement, STATE 11814),
    (sym_nonlocal_statement, STATE 11814), (sym_exec_statement, STATE 11814),
    (sym_type_alias_statement, STATE 11814), (sym_parameterized_alias_statement, STATE 11814),
    (sym_pattern, STATE 8086), (sym_tuple_pattern, STATE 8101), (sym_list_pattern, STATE 8101),
    (sym_list_splat_pattern, STATE 6819), (sym_as_pattern, STATE 7969),
    (sym_expression, STATE 9883), (sym_primary_expression, STATE 7326),
    (sym_comptime_expression, STATE 7017), (sym_transfer_expression, STATE 7017),
    (sym_not_operator, STATE 7969), (sym_boolean_operator, STATE 7969),
    (sym_binary_operator, STATE 7017), (sym_unary_operator, STATE 7017),
    (sym_comparison_operator, STATE 7969), (sym_lambda, STATE 7969),
    (sym_assignment, STATE 12425), (sym_augmented_assignment, STATE 12425),
    (sym_pattern_list, STATE 8578), (sym_yield, STATE 12425), (sym_attribute, STATE 6836),
    (sym_subscript, STATE 6838), (sym_call, STATE 6845), (sym_mlir_type, STATE 7017),
    (sym_list, STATE 7017), (sym_set, STATE 7017), (sym_tuple, STATE 7017),
    (sym_dictionary, STATE 7017), (sym_struct_literal, STATE 7017),
    (sym_list_comprehension, STATE 7017), (sym_dictionary_comprehension, STATE 7017),
    (sym_set_comprehension, STATE 7017), (sym_generator_expression, STATE 7017),
    (sym_parenthesized_expression, STATE 7017), (sym_conditional_expression, STATE 7969),
    (sym_concatenated_string, STATE 7017), (sym_string, STATE 6751), (sym_await, STATE 7017),
    (sym_identifier, ACTIONS 9), (anon_sym_import, ACTIONS 11), (anon_sym_from, ACTIONS 13),
    (anon_sym_LPAREN, ACTIONS 15), (anon_sym_STAR, ACTIONS 17), (anon_sym_print, ACTIONS 19),
    (anon_sym_comptime, ACTIONS 335), (anon_sym_assert, ACTIONS 23),
    (anon_sym___comptime_assert, ACTIONS 25), (anon_sym_return, ACTIONS 27),
    (anon_sym_del, ACTIONS 29), (anon_sym_raise, ACTIONS 31), (anon_sym_pass, ACTIONS 33),
    (anon_sym_break, ACTIONS 35), (anon_sym_continue, ACTIONS 37),
    (anon_sym_match, ACTIONS 1596), (anon_sym_async, ACTIONS 73), (anon_sym_LBRACK, ACTIONS 59),
    (anon_sym_LBRACE, ACTIONS 61), (anon_sym_global, ACTIONS 63),
    (anon_sym_nonlocal, ACTIONS 65), (anon_sym_exec, ACTIONS 67), (anon_sym_type, ACTIONS 69),
    (anon_sym_mut, ACTIONS 73), (anon_sym_out, ACTIONS 73), (anon_sym_DASH, ACTIONS 79),
    (anon_sym_PLUS, ACTIONS 79), (anon_sym_ref, ACTIONS 81), (anon_sym_var, ACTIONS 81),
    (anon_sym_not, ACTIONS 83), (anon_sym_TILDE, ACTIONS 79), (anon_sym_lambda, ACTIONS 85),
    (anon_sym_yield, ACTIONS 87), (sym_ellipsis, ACTIONS 89), (anon_sym___mlir_type, ACTIONS 91),
    (sym_integer, ACTIONS 93), (sym_float, ACTIONS 89), (anon_sym_await, ACTIONS 95),
    (sym_true, ACTIONS 93), (sym_false, ACTIONS 93), (sym_none, ACTIONS 93),
    (sym_comment, ACTIONS 3), (sym_line_continuation, ACTIONS 3), (sym__newline, ACTIONS 1742),
    (sym__indent, ACTIONS 1744), (sym_string_start, ACTIONS 97)]"

definition parse_table_1258 :: "(nat \<times> nat) list" where "parse_table_1258 = [
    (sym__simple_statements, STATE 12363), (sym_import_statement, STATE 12168),
    (sym_future_import_statement, STATE 12168), (sym_import_from_statement, STATE 12168),
    (sym_print_statement, STATE 12168), (sym_assert_statement, STATE 12168),
    (sym_comptime_assert_statement, STATE 12168), (sym_expression_statement, STATE 12168),
    (sym_tuple_expression, STATE 12425), (sym_named_expression, STATE 7969),
    (sym__named_expression_lhs, STATE 12752), (sym_return_statement, STATE 12168),
    (sym_delete_statement, STATE 12168), (sym_raise_statement, STATE 12168),
    (sym_pass_statement, STATE 12168), (sym_break_statement, STATE 12168),
    (sym_continue_statement, STATE 12168), (sym_global_statement, STATE 12168),
    (sym_nonlocal_statement, STATE 12168), (sym_exec_statement, STATE 12168),
    (sym_type_alias_statement, STATE 12168), (sym_parameterized_alias_statement, STATE 12168),
    (sym_pattern, STATE 8086), (sym_tuple_pattern, STATE 8101), (sym_list_pattern, STATE 8101),
    (sym_list_splat_pattern, STATE 6819), (sym_as_pattern, STATE 7969),
    (sym_expression, STATE 9883), (sym_primary_expression, STATE 7326),
    (sym_comptime_expression, STATE 7017), (sym_transfer_expression, STATE 7017),
    (sym_not_operator, STATE 7969), (sym_boolean_operator, STATE 7969),
    (sym_binary_operator, STATE 7017), (sym_unary_operator, STATE 7017),
    (sym_comparison_operator, STATE 7969), (sym_lambda, STATE 7969),
    (sym_assignment, STATE 12425), (sym_augmented_assignment, STATE 12425),
    (sym_pattern_list, STATE 8578), (sym_yield, STATE 12425), (sym_attribute, STATE 6836),
    (sym_subscript, STATE 6838), (sym_call, STATE 6845), (sym_mlir_type, STATE 7017),
    (sym_list, STATE 7017), (sym_set, STATE 7017), (sym_tuple, STATE 7017),
    (sym_dictionary, STATE 7017), (sym_struct_literal, STATE 7017),
    (sym_list_comprehension, STATE 7017), (sym_dictionary_comprehension, STATE 7017),
    (sym_set_comprehension, STATE 7017), (sym_generator_expression, STATE 7017),
    (sym_parenthesized_expression, STATE 7017), (sym_conditional_expression, STATE 7969),
    (sym_concatenated_string, STATE 7017), (sym_string, STATE 6751), (sym_await, STATE 7017),
    (sym_identifier, ACTIONS 9), (anon_sym_import, ACTIONS 11), (anon_sym_from, ACTIONS 13),
    (anon_sym_LPAREN, ACTIONS 15), (anon_sym_STAR, ACTIONS 17), (anon_sym_print, ACTIONS 19),
    (anon_sym_comptime, ACTIONS 335), (anon_sym_assert, ACTIONS 23),
    (anon_sym___comptime_assert, ACTIONS 25), (anon_sym_return, ACTIONS 27),
    (anon_sym_del, ACTIONS 29), (anon_sym_raise, ACTIONS 31), (anon_sym_pass, ACTIONS 33),
    (anon_sym_break, ACTIONS 35), (anon_sym_continue, ACTIONS 37),
    (anon_sym_match, ACTIONS 1596), (anon_sym_async, ACTIONS 73), (anon_sym_LBRACK, ACTIONS 59),
    (anon_sym_LBRACE, ACTIONS 61), (anon_sym_global, ACTIONS 63),
    (anon_sym_nonlocal, ACTIONS 65), (anon_sym_exec, ACTIONS 67), (anon_sym_type, ACTIONS 69),
    (anon_sym_mut, ACTIONS 73), (anon_sym_out, ACTIONS 73), (anon_sym_DASH, ACTIONS 79),
    (anon_sym_PLUS, ACTIONS 79), (anon_sym_ref, ACTIONS 81), (anon_sym_var, ACTIONS 81),
    (anon_sym_not, ACTIONS 83), (anon_sym_TILDE, ACTIONS 79), (anon_sym_lambda, ACTIONS 85),
    (anon_sym_yield, ACTIONS 87), (sym_ellipsis, ACTIONS 89), (anon_sym___mlir_type, ACTIONS 91),
    (sym_integer, ACTIONS 93), (sym_float, ACTIONS 89), (anon_sym_await, ACTIONS 95),
    (sym_true, ACTIONS 93), (sym_false, ACTIONS 93), (sym_none, ACTIONS 93),
    (sym_comment, ACTIONS 3), (sym_line_continuation, ACTIONS 3), (sym__newline, ACTIONS 1746),
    (sym__indent, ACTIONS 1748), (sym_string_start, ACTIONS 97)]"

definition parse_table_1259 :: "(nat \<times> nat) list" where "parse_table_1259 = [
    (sym__simple_statements, STATE 4600), (sym_import_statement, STATE 11814),
    (sym_future_import_statement, STATE 11814), (sym_import_from_statement, STATE 11814),
    (sym_print_statement, STATE 11814), (sym_assert_statement, STATE 11814),
    (sym_comptime_assert_statement, STATE 11814), (sym_expression_statement, STATE 11814),
    (sym_tuple_expression, STATE 12425), (sym_named_expression, STATE 7969),
    (sym__named_expression_lhs, STATE 12752), (sym_return_statement, STATE 11814),
    (sym_delete_statement, STATE 11814), (sym_raise_statement, STATE 11814),
    (sym_pass_statement, STATE 11814), (sym_break_statement, STATE 11814),
    (sym_continue_statement, STATE 11814), (sym_global_statement, STATE 11814),
    (sym_nonlocal_statement, STATE 11814), (sym_exec_statement, STATE 11814),
    (sym_type_alias_statement, STATE 11814), (sym_parameterized_alias_statement, STATE 11814),
    (sym_pattern, STATE 8086), (sym_tuple_pattern, STATE 8101), (sym_list_pattern, STATE 8101),
    (sym_list_splat_pattern, STATE 6819), (sym_as_pattern, STATE 7969),
    (sym_expression, STATE 9883), (sym_primary_expression, STATE 7326),
    (sym_comptime_expression, STATE 7017), (sym_transfer_expression, STATE 7017),
    (sym_not_operator, STATE 7969), (sym_boolean_operator, STATE 7969),
    (sym_binary_operator, STATE 7017), (sym_unary_operator, STATE 7017),
    (sym_comparison_operator, STATE 7969), (sym_lambda, STATE 7969),
    (sym_assignment, STATE 12425), (sym_augmented_assignment, STATE 12425),
    (sym_pattern_list, STATE 8578), (sym_yield, STATE 12425), (sym_attribute, STATE 6836),
    (sym_subscript, STATE 6838), (sym_call, STATE 6845), (sym_mlir_type, STATE 7017),
    (sym_list, STATE 7017), (sym_set, STATE 7017), (sym_tuple, STATE 7017),
    (sym_dictionary, STATE 7017), (sym_struct_literal, STATE 7017),
    (sym_list_comprehension, STATE 7017), (sym_dictionary_comprehension, STATE 7017),
    (sym_set_comprehension, STATE 7017), (sym_generator_expression, STATE 7017),
    (sym_parenthesized_expression, STATE 7017), (sym_conditional_expression, STATE 7969),
    (sym_concatenated_string, STATE 7017), (sym_string, STATE 6751), (sym_await, STATE 7017),
    (sym_identifier, ACTIONS 9), (anon_sym_import, ACTIONS 11), (anon_sym_from, ACTIONS 13),
    (anon_sym_LPAREN, ACTIONS 15), (anon_sym_STAR, ACTIONS 17), (anon_sym_print, ACTIONS 19),
    (anon_sym_comptime, ACTIONS 335), (anon_sym_assert, ACTIONS 23),
    (anon_sym___comptime_assert, ACTIONS 25), (anon_sym_return, ACTIONS 27),
    (anon_sym_del, ACTIONS 29), (anon_sym_raise, ACTIONS 31), (anon_sym_pass, ACTIONS 33),
    (anon_sym_break, ACTIONS 35), (anon_sym_continue, ACTIONS 37),
    (anon_sym_match, ACTIONS 1596), (anon_sym_async, ACTIONS 73), (anon_sym_LBRACK, ACTIONS 59),
    (anon_sym_LBRACE, ACTIONS 61), (anon_sym_global, ACTIONS 63),
    (anon_sym_nonlocal, ACTIONS 65), (anon_sym_exec, ACTIONS 67), (anon_sym_type, ACTIONS 69),
    (anon_sym_mut, ACTIONS 73), (anon_sym_out, ACTIONS 73), (anon_sym_DASH, ACTIONS 79),
    (anon_sym_PLUS, ACTIONS 79), (anon_sym_ref, ACTIONS 81), (anon_sym_var, ACTIONS 81),
    (anon_sym_not, ACTIONS 83), (anon_sym_TILDE, ACTIONS 79), (anon_sym_lambda, ACTIONS 85),
    (anon_sym_yield, ACTIONS 87), (sym_ellipsis, ACTIONS 89), (anon_sym___mlir_type, ACTIONS 91),
    (sym_integer, ACTIONS 93), (sym_float, ACTIONS 89), (anon_sym_await, ACTIONS 95),
    (sym_true, ACTIONS 93), (sym_false, ACTIONS 93), (sym_none, ACTIONS 93),
    (sym_comment, ACTIONS 3), (sym_line_continuation, ACTIONS 3), (sym__newline, ACTIONS 1750),
    (sym__indent, ACTIONS 1752), (sym_string_start, ACTIONS 97)]"

definition parse_table_1260 :: "(nat \<times> nat) list" where "parse_table_1260 = [
    (sym__simple_statements, STATE 4603), (sym_import_statement, STATE 11814),
    (sym_future_import_statement, STATE 11814), (sym_import_from_statement, STATE 11814),
    (sym_print_statement, STATE 11814), (sym_assert_statement, STATE 11814),
    (sym_comptime_assert_statement, STATE 11814), (sym_expression_statement, STATE 11814),
    (sym_tuple_expression, STATE 12425), (sym_named_expression, STATE 7969),
    (sym__named_expression_lhs, STATE 12752), (sym_return_statement, STATE 11814),
    (sym_delete_statement, STATE 11814), (sym_raise_statement, STATE 11814),
    (sym_pass_statement, STATE 11814), (sym_break_statement, STATE 11814),
    (sym_continue_statement, STATE 11814), (sym_global_statement, STATE 11814),
    (sym_nonlocal_statement, STATE 11814), (sym_exec_statement, STATE 11814),
    (sym_type_alias_statement, STATE 11814), (sym_parameterized_alias_statement, STATE 11814),
    (sym_pattern, STATE 8086), (sym_tuple_pattern, STATE 8101), (sym_list_pattern, STATE 8101),
    (sym_list_splat_pattern, STATE 6819), (sym_as_pattern, STATE 7969),
    (sym_expression, STATE 9883), (sym_primary_expression, STATE 7326),
    (sym_comptime_expression, STATE 7017), (sym_transfer_expression, STATE 7017),
    (sym_not_operator, STATE 7969), (sym_boolean_operator, STATE 7969),
    (sym_binary_operator, STATE 7017), (sym_unary_operator, STATE 7017),
    (sym_comparison_operator, STATE 7969), (sym_lambda, STATE 7969),
    (sym_assignment, STATE 12425), (sym_augmented_assignment, STATE 12425),
    (sym_pattern_list, STATE 8578), (sym_yield, STATE 12425), (sym_attribute, STATE 6836),
    (sym_subscript, STATE 6838), (sym_call, STATE 6845), (sym_mlir_type, STATE 7017),
    (sym_list, STATE 7017), (sym_set, STATE 7017), (sym_tuple, STATE 7017),
    (sym_dictionary, STATE 7017), (sym_struct_literal, STATE 7017),
    (sym_list_comprehension, STATE 7017), (sym_dictionary_comprehension, STATE 7017),
    (sym_set_comprehension, STATE 7017), (sym_generator_expression, STATE 7017),
    (sym_parenthesized_expression, STATE 7017), (sym_conditional_expression, STATE 7969),
    (sym_concatenated_string, STATE 7017), (sym_string, STATE 6751), (sym_await, STATE 7017),
    (sym_identifier, ACTIONS 9), (anon_sym_import, ACTIONS 11), (anon_sym_from, ACTIONS 13),
    (anon_sym_LPAREN, ACTIONS 15), (anon_sym_STAR, ACTIONS 17), (anon_sym_print, ACTIONS 19),
    (anon_sym_comptime, ACTIONS 335), (anon_sym_assert, ACTIONS 23),
    (anon_sym___comptime_assert, ACTIONS 25), (anon_sym_return, ACTIONS 27),
    (anon_sym_del, ACTIONS 29), (anon_sym_raise, ACTIONS 31), (anon_sym_pass, ACTIONS 33),
    (anon_sym_break, ACTIONS 35), (anon_sym_continue, ACTIONS 37),
    (anon_sym_match, ACTIONS 1596), (anon_sym_async, ACTIONS 73), (anon_sym_LBRACK, ACTIONS 59),
    (anon_sym_LBRACE, ACTIONS 61), (anon_sym_global, ACTIONS 63),
    (anon_sym_nonlocal, ACTIONS 65), (anon_sym_exec, ACTIONS 67), (anon_sym_type, ACTIONS 69),
    (anon_sym_mut, ACTIONS 73), (anon_sym_out, ACTIONS 73), (anon_sym_DASH, ACTIONS 79),
    (anon_sym_PLUS, ACTIONS 79), (anon_sym_ref, ACTIONS 81), (anon_sym_var, ACTIONS 81),
    (anon_sym_not, ACTIONS 83), (anon_sym_TILDE, ACTIONS 79), (anon_sym_lambda, ACTIONS 85),
    (anon_sym_yield, ACTIONS 87), (sym_ellipsis, ACTIONS 89), (anon_sym___mlir_type, ACTIONS 91),
    (sym_integer, ACTIONS 93), (sym_float, ACTIONS 89), (anon_sym_await, ACTIONS 95),
    (sym_true, ACTIONS 93), (sym_false, ACTIONS 93), (sym_none, ACTIONS 93),
    (sym_comment, ACTIONS 3), (sym_line_continuation, ACTIONS 3), (sym__newline, ACTIONS 1754),
    (sym__indent, ACTIONS 1756), (sym_string_start, ACTIONS 97)]"

definition parse_table_1261 :: "(nat \<times> nat) list" where "parse_table_1261 = [
    (sym__simple_statements, STATE 5813), (sym_import_statement, STATE 12239),
    (sym_future_import_statement, STATE 12239), (sym_import_from_statement, STATE 12239),
    (sym_print_statement, STATE 12239), (sym_assert_statement, STATE 12239),
    (sym_comptime_assert_statement, STATE 12239), (sym_expression_statement, STATE 12239),
    (sym_tuple_expression, STATE 12425), (sym_named_expression, STATE 7969),
    (sym__named_expression_lhs, STATE 12752), (sym_return_statement, STATE 12239),
    (sym_delete_statement, STATE 12239), (sym_raise_statement, STATE 12239),
    (sym_pass_statement, STATE 12239), (sym_break_statement, STATE 12239),
    (sym_continue_statement, STATE 12239), (sym_global_statement, STATE 12239),
    (sym_nonlocal_statement, STATE 12239), (sym_exec_statement, STATE 12239),
    (sym_type_alias_statement, STATE 12239), (sym_parameterized_alias_statement, STATE 12239),
    (sym_pattern, STATE 8086), (sym_tuple_pattern, STATE 8101), (sym_list_pattern, STATE 8101),
    (sym_list_splat_pattern, STATE 6819), (sym_as_pattern, STATE 7969),
    (sym_expression, STATE 9883), (sym_primary_expression, STATE 7326),
    (sym_comptime_expression, STATE 7017), (sym_transfer_expression, STATE 7017),
    (sym_not_operator, STATE 7969), (sym_boolean_operator, STATE 7969),
    (sym_binary_operator, STATE 7017), (sym_unary_operator, STATE 7017),
    (sym_comparison_operator, STATE 7969), (sym_lambda, STATE 7969),
    (sym_assignment, STATE 12425), (sym_augmented_assignment, STATE 12425),
    (sym_pattern_list, STATE 8578), (sym_yield, STATE 12425), (sym_attribute, STATE 6836),
    (sym_subscript, STATE 6838), (sym_call, STATE 6845), (sym_mlir_type, STATE 7017),
    (sym_list, STATE 7017), (sym_set, STATE 7017), (sym_tuple, STATE 7017),
    (sym_dictionary, STATE 7017), (sym_struct_literal, STATE 7017),
    (sym_list_comprehension, STATE 7017), (sym_dictionary_comprehension, STATE 7017),
    (sym_set_comprehension, STATE 7017), (sym_generator_expression, STATE 7017),
    (sym_parenthesized_expression, STATE 7017), (sym_conditional_expression, STATE 7969),
    (sym_concatenated_string, STATE 7017), (sym_string, STATE 6751), (sym_await, STATE 7017),
    (sym_identifier, ACTIONS 9), (anon_sym_import, ACTIONS 11), (anon_sym_from, ACTIONS 13),
    (anon_sym_LPAREN, ACTIONS 15), (anon_sym_STAR, ACTIONS 17), (anon_sym_print, ACTIONS 19),
    (anon_sym_comptime, ACTIONS 335), (anon_sym_assert, ACTIONS 23),
    (anon_sym___comptime_assert, ACTIONS 25), (anon_sym_return, ACTIONS 27),
    (anon_sym_del, ACTIONS 29), (anon_sym_raise, ACTIONS 31), (anon_sym_pass, ACTIONS 33),
    (anon_sym_break, ACTIONS 35), (anon_sym_continue, ACTIONS 37),
    (anon_sym_match, ACTIONS 1596), (anon_sym_async, ACTIONS 73), (anon_sym_LBRACK, ACTIONS 59),
    (anon_sym_LBRACE, ACTIONS 61), (anon_sym_global, ACTIONS 63),
    (anon_sym_nonlocal, ACTIONS 65), (anon_sym_exec, ACTIONS 67), (anon_sym_type, ACTIONS 69),
    (anon_sym_mut, ACTIONS 73), (anon_sym_out, ACTIONS 73), (anon_sym_DASH, ACTIONS 79),
    (anon_sym_PLUS, ACTIONS 79), (anon_sym_ref, ACTIONS 81), (anon_sym_var, ACTIONS 81),
    (anon_sym_not, ACTIONS 83), (anon_sym_TILDE, ACTIONS 79), (anon_sym_lambda, ACTIONS 85),
    (anon_sym_yield, ACTIONS 87), (sym_ellipsis, ACTIONS 89), (anon_sym___mlir_type, ACTIONS 91),
    (sym_integer, ACTIONS 93), (sym_float, ACTIONS 89), (anon_sym_await, ACTIONS 95),
    (sym_true, ACTIONS 93), (sym_false, ACTIONS 93), (sym_none, ACTIONS 93),
    (sym_comment, ACTIONS 3), (sym_line_continuation, ACTIONS 3), (sym__newline, ACTIONS 1758),
    (sym__indent, ACTIONS 1760), (sym_string_start, ACTIONS 97)]"

definition parse_table_1262 :: "(nat \<times> nat) list" where "parse_table_1262 = [
    (sym__simple_statements, STATE 4291), (sym_import_statement, STATE 11814),
    (sym_future_import_statement, STATE 11814), (sym_import_from_statement, STATE 11814),
    (sym_print_statement, STATE 11814), (sym_assert_statement, STATE 11814),
    (sym_comptime_assert_statement, STATE 11814), (sym_expression_statement, STATE 11814),
    (sym_tuple_expression, STATE 12425), (sym_named_expression, STATE 7969),
    (sym__named_expression_lhs, STATE 12752), (sym_return_statement, STATE 11814),
    (sym_delete_statement, STATE 11814), (sym_raise_statement, STATE 11814),
    (sym_pass_statement, STATE 11814), (sym_break_statement, STATE 11814),
    (sym_continue_statement, STATE 11814), (sym_global_statement, STATE 11814),
    (sym_nonlocal_statement, STATE 11814), (sym_exec_statement, STATE 11814),
    (sym_type_alias_statement, STATE 11814), (sym_parameterized_alias_statement, STATE 11814),
    (sym_pattern, STATE 8086), (sym_tuple_pattern, STATE 8101), (sym_list_pattern, STATE 8101),
    (sym_list_splat_pattern, STATE 6819), (sym_as_pattern, STATE 7969),
    (sym_expression, STATE 9883), (sym_primary_expression, STATE 7326),
    (sym_comptime_expression, STATE 7017), (sym_transfer_expression, STATE 7017),
    (sym_not_operator, STATE 7969), (sym_boolean_operator, STATE 7969),
    (sym_binary_operator, STATE 7017), (sym_unary_operator, STATE 7017),
    (sym_comparison_operator, STATE 7969), (sym_lambda, STATE 7969),
    (sym_assignment, STATE 12425), (sym_augmented_assignment, STATE 12425),
    (sym_pattern_list, STATE 8578), (sym_yield, STATE 12425), (sym_attribute, STATE 6836),
    (sym_subscript, STATE 6838), (sym_call, STATE 6845), (sym_mlir_type, STATE 7017),
    (sym_list, STATE 7017), (sym_set, STATE 7017), (sym_tuple, STATE 7017),
    (sym_dictionary, STATE 7017), (sym_struct_literal, STATE 7017),
    (sym_list_comprehension, STATE 7017), (sym_dictionary_comprehension, STATE 7017),
    (sym_set_comprehension, STATE 7017), (sym_generator_expression, STATE 7017),
    (sym_parenthesized_expression, STATE 7017), (sym_conditional_expression, STATE 7969),
    (sym_concatenated_string, STATE 7017), (sym_string, STATE 6751), (sym_await, STATE 7017),
    (sym_identifier, ACTIONS 9), (anon_sym_import, ACTIONS 11), (anon_sym_from, ACTIONS 13),
    (anon_sym_LPAREN, ACTIONS 15), (anon_sym_STAR, ACTIONS 17), (anon_sym_print, ACTIONS 19),
    (anon_sym_comptime, ACTIONS 335), (anon_sym_assert, ACTIONS 23),
    (anon_sym___comptime_assert, ACTIONS 25), (anon_sym_return, ACTIONS 27),
    (anon_sym_del, ACTIONS 29), (anon_sym_raise, ACTIONS 31), (anon_sym_pass, ACTIONS 33),
    (anon_sym_break, ACTIONS 35), (anon_sym_continue, ACTIONS 37),
    (anon_sym_match, ACTIONS 1596), (anon_sym_async, ACTIONS 73), (anon_sym_LBRACK, ACTIONS 59),
    (anon_sym_LBRACE, ACTIONS 61), (anon_sym_global, ACTIONS 63),
    (anon_sym_nonlocal, ACTIONS 65), (anon_sym_exec, ACTIONS 67), (anon_sym_type, ACTIONS 69),
    (anon_sym_mut, ACTIONS 73), (anon_sym_out, ACTIONS 73), (anon_sym_DASH, ACTIONS 79),
    (anon_sym_PLUS, ACTIONS 79), (anon_sym_ref, ACTIONS 81), (anon_sym_var, ACTIONS 81),
    (anon_sym_not, ACTIONS 83), (anon_sym_TILDE, ACTIONS 79), (anon_sym_lambda, ACTIONS 85),
    (anon_sym_yield, ACTIONS 87), (sym_ellipsis, ACTIONS 89), (anon_sym___mlir_type, ACTIONS 91),
    (sym_integer, ACTIONS 93), (sym_float, ACTIONS 89), (anon_sym_await, ACTIONS 95),
    (sym_true, ACTIONS 93), (sym_false, ACTIONS 93), (sym_none, ACTIONS 93),
    (sym_comment, ACTIONS 3), (sym_line_continuation, ACTIONS 3), (sym__newline, ACTIONS 1762),
    (sym__indent, ACTIONS 1764), (sym_string_start, ACTIONS 97)]"

definition parse_table_1263 :: "(nat \<times> nat) list" where "parse_table_1263 = [
    (sym__simple_statements, STATE 4292), (sym_import_statement, STATE 11814),
    (sym_future_import_statement, STATE 11814), (sym_import_from_statement, STATE 11814),
    (sym_print_statement, STATE 11814), (sym_assert_statement, STATE 11814),
    (sym_comptime_assert_statement, STATE 11814), (sym_expression_statement, STATE 11814),
    (sym_tuple_expression, STATE 12425), (sym_named_expression, STATE 7969),
    (sym__named_expression_lhs, STATE 12752), (sym_return_statement, STATE 11814),
    (sym_delete_statement, STATE 11814), (sym_raise_statement, STATE 11814),
    (sym_pass_statement, STATE 11814), (sym_break_statement, STATE 11814),
    (sym_continue_statement, STATE 11814), (sym_global_statement, STATE 11814),
    (sym_nonlocal_statement, STATE 11814), (sym_exec_statement, STATE 11814),
    (sym_type_alias_statement, STATE 11814), (sym_parameterized_alias_statement, STATE 11814),
    (sym_pattern, STATE 8086), (sym_tuple_pattern, STATE 8101), (sym_list_pattern, STATE 8101),
    (sym_list_splat_pattern, STATE 6819), (sym_as_pattern, STATE 7969),
    (sym_expression, STATE 9883), (sym_primary_expression, STATE 7326),
    (sym_comptime_expression, STATE 7017), (sym_transfer_expression, STATE 7017),
    (sym_not_operator, STATE 7969), (sym_boolean_operator, STATE 7969),
    (sym_binary_operator, STATE 7017), (sym_unary_operator, STATE 7017),
    (sym_comparison_operator, STATE 7969), (sym_lambda, STATE 7969),
    (sym_assignment, STATE 12425), (sym_augmented_assignment, STATE 12425),
    (sym_pattern_list, STATE 8578), (sym_yield, STATE 12425), (sym_attribute, STATE 6836),
    (sym_subscript, STATE 6838), (sym_call, STATE 6845), (sym_mlir_type, STATE 7017),
    (sym_list, STATE 7017), (sym_set, STATE 7017), (sym_tuple, STATE 7017),
    (sym_dictionary, STATE 7017), (sym_struct_literal, STATE 7017),
    (sym_list_comprehension, STATE 7017), (sym_dictionary_comprehension, STATE 7017),
    (sym_set_comprehension, STATE 7017), (sym_generator_expression, STATE 7017),
    (sym_parenthesized_expression, STATE 7017), (sym_conditional_expression, STATE 7969),
    (sym_concatenated_string, STATE 7017), (sym_string, STATE 6751), (sym_await, STATE 7017),
    (sym_identifier, ACTIONS 9), (anon_sym_import, ACTIONS 11), (anon_sym_from, ACTIONS 13),
    (anon_sym_LPAREN, ACTIONS 15), (anon_sym_STAR, ACTIONS 17), (anon_sym_print, ACTIONS 19),
    (anon_sym_comptime, ACTIONS 335), (anon_sym_assert, ACTIONS 23),
    (anon_sym___comptime_assert, ACTIONS 25), (anon_sym_return, ACTIONS 27),
    (anon_sym_del, ACTIONS 29), (anon_sym_raise, ACTIONS 31), (anon_sym_pass, ACTIONS 33),
    (anon_sym_break, ACTIONS 35), (anon_sym_continue, ACTIONS 37),
    (anon_sym_match, ACTIONS 1596), (anon_sym_async, ACTIONS 73), (anon_sym_LBRACK, ACTIONS 59),
    (anon_sym_LBRACE, ACTIONS 61), (anon_sym_global, ACTIONS 63),
    (anon_sym_nonlocal, ACTIONS 65), (anon_sym_exec, ACTIONS 67), (anon_sym_type, ACTIONS 69),
    (anon_sym_mut, ACTIONS 73), (anon_sym_out, ACTIONS 73), (anon_sym_DASH, ACTIONS 79),
    (anon_sym_PLUS, ACTIONS 79), (anon_sym_ref, ACTIONS 81), (anon_sym_var, ACTIONS 81),
    (anon_sym_not, ACTIONS 83), (anon_sym_TILDE, ACTIONS 79), (anon_sym_lambda, ACTIONS 85),
    (anon_sym_yield, ACTIONS 87), (sym_ellipsis, ACTIONS 89), (anon_sym___mlir_type, ACTIONS 91),
    (sym_integer, ACTIONS 93), (sym_float, ACTIONS 89), (anon_sym_await, ACTIONS 95),
    (sym_true, ACTIONS 93), (sym_false, ACTIONS 93), (sym_none, ACTIONS 93),
    (sym_comment, ACTIONS 3), (sym_line_continuation, ACTIONS 3), (sym__newline, ACTIONS 1766),
    (sym__indent, ACTIONS 1768), (sym_string_start, ACTIONS 97)]"

definition parse_table_1264 :: "(nat \<times> nat) list" where "parse_table_1264 = [
    (sym__simple_statements, STATE 5947), (sym_import_statement, STATE 12239),
    (sym_future_import_statement, STATE 12239), (sym_import_from_statement, STATE 12239),
    (sym_print_statement, STATE 12239), (sym_assert_statement, STATE 12239),
    (sym_comptime_assert_statement, STATE 12239), (sym_expression_statement, STATE 12239),
    (sym_tuple_expression, STATE 12425), (sym_named_expression, STATE 7969),
    (sym__named_expression_lhs, STATE 12752), (sym_return_statement, STATE 12239),
    (sym_delete_statement, STATE 12239), (sym_raise_statement, STATE 12239),
    (sym_pass_statement, STATE 12239), (sym_break_statement, STATE 12239),
    (sym_continue_statement, STATE 12239), (sym_global_statement, STATE 12239),
    (sym_nonlocal_statement, STATE 12239), (sym_exec_statement, STATE 12239),
    (sym_type_alias_statement, STATE 12239), (sym_parameterized_alias_statement, STATE 12239),
    (sym_pattern, STATE 8086), (sym_tuple_pattern, STATE 8101), (sym_list_pattern, STATE 8101),
    (sym_list_splat_pattern, STATE 6819), (sym_as_pattern, STATE 7969),
    (sym_expression, STATE 9883), (sym_primary_expression, STATE 7326),
    (sym_comptime_expression, STATE 7017), (sym_transfer_expression, STATE 7017),
    (sym_not_operator, STATE 7969), (sym_boolean_operator, STATE 7969),
    (sym_binary_operator, STATE 7017), (sym_unary_operator, STATE 7017),
    (sym_comparison_operator, STATE 7969), (sym_lambda, STATE 7969),
    (sym_assignment, STATE 12425), (sym_augmented_assignment, STATE 12425),
    (sym_pattern_list, STATE 8578), (sym_yield, STATE 12425), (sym_attribute, STATE 6836),
    (sym_subscript, STATE 6838), (sym_call, STATE 6845), (sym_mlir_type, STATE 7017),
    (sym_list, STATE 7017), (sym_set, STATE 7017), (sym_tuple, STATE 7017),
    (sym_dictionary, STATE 7017), (sym_struct_literal, STATE 7017),
    (sym_list_comprehension, STATE 7017), (sym_dictionary_comprehension, STATE 7017),
    (sym_set_comprehension, STATE 7017), (sym_generator_expression, STATE 7017),
    (sym_parenthesized_expression, STATE 7017), (sym_conditional_expression, STATE 7969),
    (sym_concatenated_string, STATE 7017), (sym_string, STATE 6751), (sym_await, STATE 7017),
    (sym_identifier, ACTIONS 9), (anon_sym_import, ACTIONS 11), (anon_sym_from, ACTIONS 13),
    (anon_sym_LPAREN, ACTIONS 15), (anon_sym_STAR, ACTIONS 17), (anon_sym_print, ACTIONS 19),
    (anon_sym_comptime, ACTIONS 335), (anon_sym_assert, ACTIONS 23),
    (anon_sym___comptime_assert, ACTIONS 25), (anon_sym_return, ACTIONS 27),
    (anon_sym_del, ACTIONS 29), (anon_sym_raise, ACTIONS 31), (anon_sym_pass, ACTIONS 33),
    (anon_sym_break, ACTIONS 35), (anon_sym_continue, ACTIONS 37),
    (anon_sym_match, ACTIONS 1596), (anon_sym_async, ACTIONS 73), (anon_sym_LBRACK, ACTIONS 59),
    (anon_sym_LBRACE, ACTIONS 61), (anon_sym_global, ACTIONS 63),
    (anon_sym_nonlocal, ACTIONS 65), (anon_sym_exec, ACTIONS 67), (anon_sym_type, ACTIONS 69),
    (anon_sym_mut, ACTIONS 73), (anon_sym_out, ACTIONS 73), (anon_sym_DASH, ACTIONS 79),
    (anon_sym_PLUS, ACTIONS 79), (anon_sym_ref, ACTIONS 81), (anon_sym_var, ACTIONS 81),
    (anon_sym_not, ACTIONS 83), (anon_sym_TILDE, ACTIONS 79), (anon_sym_lambda, ACTIONS 85),
    (anon_sym_yield, ACTIONS 87), (sym_ellipsis, ACTIONS 89), (anon_sym___mlir_type, ACTIONS 91),
    (sym_integer, ACTIONS 93), (sym_float, ACTIONS 89), (anon_sym_await, ACTIONS 95),
    (sym_true, ACTIONS 93), (sym_false, ACTIONS 93), (sym_none, ACTIONS 93),
    (sym_comment, ACTIONS 3), (sym_line_continuation, ACTIONS 3), (sym__newline, ACTIONS 1770),
    (sym__indent, ACTIONS 1772), (sym_string_start, ACTIONS 97)]"

definition parse_table_1265 :: "(nat \<times> nat) list" where "parse_table_1265 = [
    (sym__simple_statements, STATE 5150), (sym_import_statement, STATE 12239),
    (sym_future_import_statement, STATE 12239), (sym_import_from_statement, STATE 12239),
    (sym_print_statement, STATE 12239), (sym_assert_statement, STATE 12239),
    (sym_comptime_assert_statement, STATE 12239), (sym_expression_statement, STATE 12239),
    (sym_tuple_expression, STATE 12425), (sym_named_expression, STATE 7969),
    (sym__named_expression_lhs, STATE 12752), (sym_return_statement, STATE 12239),
    (sym_delete_statement, STATE 12239), (sym_raise_statement, STATE 12239),
    (sym_pass_statement, STATE 12239), (sym_break_statement, STATE 12239),
    (sym_continue_statement, STATE 12239), (sym_global_statement, STATE 12239),
    (sym_nonlocal_statement, STATE 12239), (sym_exec_statement, STATE 12239),
    (sym_type_alias_statement, STATE 12239), (sym_parameterized_alias_statement, STATE 12239),
    (sym_pattern, STATE 8086), (sym_tuple_pattern, STATE 8101), (sym_list_pattern, STATE 8101),
    (sym_list_splat_pattern, STATE 6819), (sym_as_pattern, STATE 7969),
    (sym_expression, STATE 9883), (sym_primary_expression, STATE 7326),
    (sym_comptime_expression, STATE 7017), (sym_transfer_expression, STATE 7017),
    (sym_not_operator, STATE 7969), (sym_boolean_operator, STATE 7969),
    (sym_binary_operator, STATE 7017), (sym_unary_operator, STATE 7017),
    (sym_comparison_operator, STATE 7969), (sym_lambda, STATE 7969),
    (sym_assignment, STATE 12425), (sym_augmented_assignment, STATE 12425),
    (sym_pattern_list, STATE 8578), (sym_yield, STATE 12425), (sym_attribute, STATE 6836),
    (sym_subscript, STATE 6838), (sym_call, STATE 6845), (sym_mlir_type, STATE 7017),
    (sym_list, STATE 7017), (sym_set, STATE 7017), (sym_tuple, STATE 7017),
    (sym_dictionary, STATE 7017), (sym_struct_literal, STATE 7017),
    (sym_list_comprehension, STATE 7017), (sym_dictionary_comprehension, STATE 7017),
    (sym_set_comprehension, STATE 7017), (sym_generator_expression, STATE 7017),
    (sym_parenthesized_expression, STATE 7017), (sym_conditional_expression, STATE 7969),
    (sym_concatenated_string, STATE 7017), (sym_string, STATE 6751), (sym_await, STATE 7017),
    (sym_identifier, ACTIONS 9), (anon_sym_import, ACTIONS 11), (anon_sym_from, ACTIONS 13),
    (anon_sym_LPAREN, ACTIONS 15), (anon_sym_STAR, ACTIONS 17), (anon_sym_print, ACTIONS 19),
    (anon_sym_comptime, ACTIONS 335), (anon_sym_assert, ACTIONS 23),
    (anon_sym___comptime_assert, ACTIONS 25), (anon_sym_return, ACTIONS 27),
    (anon_sym_del, ACTIONS 29), (anon_sym_raise, ACTIONS 31), (anon_sym_pass, ACTIONS 33),
    (anon_sym_break, ACTIONS 35), (anon_sym_continue, ACTIONS 37),
    (anon_sym_match, ACTIONS 1596), (anon_sym_async, ACTIONS 73), (anon_sym_LBRACK, ACTIONS 59),
    (anon_sym_LBRACE, ACTIONS 61), (anon_sym_global, ACTIONS 63),
    (anon_sym_nonlocal, ACTIONS 65), (anon_sym_exec, ACTIONS 67), (anon_sym_type, ACTIONS 69),
    (anon_sym_mut, ACTIONS 73), (anon_sym_out, ACTIONS 73), (anon_sym_DASH, ACTIONS 79),
    (anon_sym_PLUS, ACTIONS 79), (anon_sym_ref, ACTIONS 81), (anon_sym_var, ACTIONS 81),
    (anon_sym_not, ACTIONS 83), (anon_sym_TILDE, ACTIONS 79), (anon_sym_lambda, ACTIONS 85),
    (anon_sym_yield, ACTIONS 87), (sym_ellipsis, ACTIONS 89), (anon_sym___mlir_type, ACTIONS 91),
    (sym_integer, ACTIONS 93), (sym_float, ACTIONS 89), (anon_sym_await, ACTIONS 95),
    (sym_true, ACTIONS 93), (sym_false, ACTIONS 93), (sym_none, ACTIONS 93),
    (sym_comment, ACTIONS 3), (sym_line_continuation, ACTIONS 3), (sym__newline, ACTIONS 1774),
    (sym__indent, ACTIONS 1776), (sym_string_start, ACTIONS 97)]"

definition parse_table_1266 :: "(nat \<times> nat) list" where "parse_table_1266 = [
    (sym__simple_statements, STATE 4624), (sym_import_statement, STATE 11814),
    (sym_future_import_statement, STATE 11814), (sym_import_from_statement, STATE 11814),
    (sym_print_statement, STATE 11814), (sym_assert_statement, STATE 11814),
    (sym_comptime_assert_statement, STATE 11814), (sym_expression_statement, STATE 11814),
    (sym_tuple_expression, STATE 12425), (sym_named_expression, STATE 7969),
    (sym__named_expression_lhs, STATE 12752), (sym_return_statement, STATE 11814),
    (sym_delete_statement, STATE 11814), (sym_raise_statement, STATE 11814),
    (sym_pass_statement, STATE 11814), (sym_break_statement, STATE 11814),
    (sym_continue_statement, STATE 11814), (sym_global_statement, STATE 11814),
    (sym_nonlocal_statement, STATE 11814), (sym_exec_statement, STATE 11814),
    (sym_type_alias_statement, STATE 11814), (sym_parameterized_alias_statement, STATE 11814),
    (sym_pattern, STATE 8086), (sym_tuple_pattern, STATE 8101), (sym_list_pattern, STATE 8101),
    (sym_list_splat_pattern, STATE 6819), (sym_as_pattern, STATE 7969),
    (sym_expression, STATE 9883), (sym_primary_expression, STATE 7326),
    (sym_comptime_expression, STATE 7017), (sym_transfer_expression, STATE 7017),
    (sym_not_operator, STATE 7969), (sym_boolean_operator, STATE 7969),
    (sym_binary_operator, STATE 7017), (sym_unary_operator, STATE 7017),
    (sym_comparison_operator, STATE 7969), (sym_lambda, STATE 7969),
    (sym_assignment, STATE 12425), (sym_augmented_assignment, STATE 12425),
    (sym_pattern_list, STATE 8578), (sym_yield, STATE 12425), (sym_attribute, STATE 6836),
    (sym_subscript, STATE 6838), (sym_call, STATE 6845), (sym_mlir_type, STATE 7017),
    (sym_list, STATE 7017), (sym_set, STATE 7017), (sym_tuple, STATE 7017),
    (sym_dictionary, STATE 7017), (sym_struct_literal, STATE 7017),
    (sym_list_comprehension, STATE 7017), (sym_dictionary_comprehension, STATE 7017),
    (sym_set_comprehension, STATE 7017), (sym_generator_expression, STATE 7017),
    (sym_parenthesized_expression, STATE 7017), (sym_conditional_expression, STATE 7969),
    (sym_concatenated_string, STATE 7017), (sym_string, STATE 6751), (sym_await, STATE 7017),
    (sym_identifier, ACTIONS 9), (anon_sym_import, ACTIONS 11), (anon_sym_from, ACTIONS 13),
    (anon_sym_LPAREN, ACTIONS 15), (anon_sym_STAR, ACTIONS 17), (anon_sym_print, ACTIONS 19),
    (anon_sym_comptime, ACTIONS 335), (anon_sym_assert, ACTIONS 23),
    (anon_sym___comptime_assert, ACTIONS 25), (anon_sym_return, ACTIONS 27),
    (anon_sym_del, ACTIONS 29), (anon_sym_raise, ACTIONS 31), (anon_sym_pass, ACTIONS 33),
    (anon_sym_break, ACTIONS 35), (anon_sym_continue, ACTIONS 37),
    (anon_sym_match, ACTIONS 1596), (anon_sym_async, ACTIONS 73), (anon_sym_LBRACK, ACTIONS 59),
    (anon_sym_LBRACE, ACTIONS 61), (anon_sym_global, ACTIONS 63),
    (anon_sym_nonlocal, ACTIONS 65), (anon_sym_exec, ACTIONS 67), (anon_sym_type, ACTIONS 69),
    (anon_sym_mut, ACTIONS 73), (anon_sym_out, ACTIONS 73), (anon_sym_DASH, ACTIONS 79),
    (anon_sym_PLUS, ACTIONS 79), (anon_sym_ref, ACTIONS 81), (anon_sym_var, ACTIONS 81),
    (anon_sym_not, ACTIONS 83), (anon_sym_TILDE, ACTIONS 79), (anon_sym_lambda, ACTIONS 85),
    (anon_sym_yield, ACTIONS 87), (sym_ellipsis, ACTIONS 89), (anon_sym___mlir_type, ACTIONS 91),
    (sym_integer, ACTIONS 93), (sym_float, ACTIONS 89), (anon_sym_await, ACTIONS 95),
    (sym_true, ACTIONS 93), (sym_false, ACTIONS 93), (sym_none, ACTIONS 93),
    (sym_comment, ACTIONS 3), (sym_line_continuation, ACTIONS 3), (sym__newline, ACTIONS 1778),
    (sym__indent, ACTIONS 1780), (sym_string_start, ACTIONS 97)]"

definition parse_table_1267 :: "(nat \<times> nat) list" where "parse_table_1267 = [
    (sym__simple_statements, STATE 4684), (sym_import_statement, STATE 12239),
    (sym_future_import_statement, STATE 12239), (sym_import_from_statement, STATE 12239),
    (sym_print_statement, STATE 12239), (sym_assert_statement, STATE 12239),
    (sym_comptime_assert_statement, STATE 12239), (sym_expression_statement, STATE 12239),
    (sym_tuple_expression, STATE 12425), (sym_named_expression, STATE 7969),
    (sym__named_expression_lhs, STATE 12752), (sym_return_statement, STATE 12239),
    (sym_delete_statement, STATE 12239), (sym_raise_statement, STATE 12239),
    (sym_pass_statement, STATE 12239), (sym_break_statement, STATE 12239),
    (sym_continue_statement, STATE 12239), (sym_global_statement, STATE 12239),
    (sym_nonlocal_statement, STATE 12239), (sym_exec_statement, STATE 12239),
    (sym_type_alias_statement, STATE 12239), (sym_parameterized_alias_statement, STATE 12239),
    (sym_pattern, STATE 8086), (sym_tuple_pattern, STATE 8101), (sym_list_pattern, STATE 8101),
    (sym_list_splat_pattern, STATE 6819), (sym_as_pattern, STATE 7969),
    (sym_expression, STATE 9883), (sym_primary_expression, STATE 7326),
    (sym_comptime_expression, STATE 7017), (sym_transfer_expression, STATE 7017),
    (sym_not_operator, STATE 7969), (sym_boolean_operator, STATE 7969),
    (sym_binary_operator, STATE 7017), (sym_unary_operator, STATE 7017),
    (sym_comparison_operator, STATE 7969), (sym_lambda, STATE 7969),
    (sym_assignment, STATE 12425), (sym_augmented_assignment, STATE 12425),
    (sym_pattern_list, STATE 8578), (sym_yield, STATE 12425), (sym_attribute, STATE 6836),
    (sym_subscript, STATE 6838), (sym_call, STATE 6845), (sym_mlir_type, STATE 7017),
    (sym_list, STATE 7017), (sym_set, STATE 7017), (sym_tuple, STATE 7017),
    (sym_dictionary, STATE 7017), (sym_struct_literal, STATE 7017),
    (sym_list_comprehension, STATE 7017), (sym_dictionary_comprehension, STATE 7017),
    (sym_set_comprehension, STATE 7017), (sym_generator_expression, STATE 7017),
    (sym_parenthesized_expression, STATE 7017), (sym_conditional_expression, STATE 7969),
    (sym_concatenated_string, STATE 7017), (sym_string, STATE 6751), (sym_await, STATE 7017),
    (sym_identifier, ACTIONS 9), (anon_sym_import, ACTIONS 11), (anon_sym_from, ACTIONS 13),
    (anon_sym_LPAREN, ACTIONS 15), (anon_sym_STAR, ACTIONS 17), (anon_sym_print, ACTIONS 19),
    (anon_sym_comptime, ACTIONS 335), (anon_sym_assert, ACTIONS 23),
    (anon_sym___comptime_assert, ACTIONS 25), (anon_sym_return, ACTIONS 27),
    (anon_sym_del, ACTIONS 29), (anon_sym_raise, ACTIONS 31), (anon_sym_pass, ACTIONS 33),
    (anon_sym_break, ACTIONS 35), (anon_sym_continue, ACTIONS 37),
    (anon_sym_match, ACTIONS 1596), (anon_sym_async, ACTIONS 73), (anon_sym_LBRACK, ACTIONS 59),
    (anon_sym_LBRACE, ACTIONS 61), (anon_sym_global, ACTIONS 63),
    (anon_sym_nonlocal, ACTIONS 65), (anon_sym_exec, ACTIONS 67), (anon_sym_type, ACTIONS 69),
    (anon_sym_mut, ACTIONS 73), (anon_sym_out, ACTIONS 73), (anon_sym_DASH, ACTIONS 79),
    (anon_sym_PLUS, ACTIONS 79), (anon_sym_ref, ACTIONS 81), (anon_sym_var, ACTIONS 81),
    (anon_sym_not, ACTIONS 83), (anon_sym_TILDE, ACTIONS 79), (anon_sym_lambda, ACTIONS 85),
    (anon_sym_yield, ACTIONS 87), (sym_ellipsis, ACTIONS 89), (anon_sym___mlir_type, ACTIONS 91),
    (sym_integer, ACTIONS 93), (sym_float, ACTIONS 89), (anon_sym_await, ACTIONS 95),
    (sym_true, ACTIONS 93), (sym_false, ACTIONS 93), (sym_none, ACTIONS 93),
    (sym_comment, ACTIONS 3), (sym_line_continuation, ACTIONS 3), (sym__newline, ACTIONS 1782),
    (sym__indent, ACTIONS 1784), (sym_string_start, ACTIONS 97)]"

definition parse_table_1268 :: "(nat \<times> nat) list" where "parse_table_1268 = [
    (sym__simple_statements, STATE 4628), (sym_import_statement, STATE 11814),
    (sym_future_import_statement, STATE 11814), (sym_import_from_statement, STATE 11814),
    (sym_print_statement, STATE 11814), (sym_assert_statement, STATE 11814),
    (sym_comptime_assert_statement, STATE 11814), (sym_expression_statement, STATE 11814),
    (sym_tuple_expression, STATE 12425), (sym_named_expression, STATE 7969),
    (sym__named_expression_lhs, STATE 12752), (sym_return_statement, STATE 11814),
    (sym_delete_statement, STATE 11814), (sym_raise_statement, STATE 11814),
    (sym_pass_statement, STATE 11814), (sym_break_statement, STATE 11814),
    (sym_continue_statement, STATE 11814), (sym_global_statement, STATE 11814),
    (sym_nonlocal_statement, STATE 11814), (sym_exec_statement, STATE 11814),
    (sym_type_alias_statement, STATE 11814), (sym_parameterized_alias_statement, STATE 11814),
    (sym_pattern, STATE 8086), (sym_tuple_pattern, STATE 8101), (sym_list_pattern, STATE 8101),
    (sym_list_splat_pattern, STATE 6819), (sym_as_pattern, STATE 7969),
    (sym_expression, STATE 9883), (sym_primary_expression, STATE 7326),
    (sym_comptime_expression, STATE 7017), (sym_transfer_expression, STATE 7017),
    (sym_not_operator, STATE 7969), (sym_boolean_operator, STATE 7969),
    (sym_binary_operator, STATE 7017), (sym_unary_operator, STATE 7017),
    (sym_comparison_operator, STATE 7969), (sym_lambda, STATE 7969),
    (sym_assignment, STATE 12425), (sym_augmented_assignment, STATE 12425),
    (sym_pattern_list, STATE 8578), (sym_yield, STATE 12425), (sym_attribute, STATE 6836),
    (sym_subscript, STATE 6838), (sym_call, STATE 6845), (sym_mlir_type, STATE 7017),
    (sym_list, STATE 7017), (sym_set, STATE 7017), (sym_tuple, STATE 7017),
    (sym_dictionary, STATE 7017), (sym_struct_literal, STATE 7017),
    (sym_list_comprehension, STATE 7017), (sym_dictionary_comprehension, STATE 7017),
    (sym_set_comprehension, STATE 7017), (sym_generator_expression, STATE 7017),
    (sym_parenthesized_expression, STATE 7017), (sym_conditional_expression, STATE 7969),
    (sym_concatenated_string, STATE 7017), (sym_string, STATE 6751), (sym_await, STATE 7017),
    (sym_identifier, ACTIONS 9), (anon_sym_import, ACTIONS 11), (anon_sym_from, ACTIONS 13),
    (anon_sym_LPAREN, ACTIONS 15), (anon_sym_STAR, ACTIONS 17), (anon_sym_print, ACTIONS 19),
    (anon_sym_comptime, ACTIONS 335), (anon_sym_assert, ACTIONS 23),
    (anon_sym___comptime_assert, ACTIONS 25), (anon_sym_return, ACTIONS 27),
    (anon_sym_del, ACTIONS 29), (anon_sym_raise, ACTIONS 31), (anon_sym_pass, ACTIONS 33),
    (anon_sym_break, ACTIONS 35), (anon_sym_continue, ACTIONS 37),
    (anon_sym_match, ACTIONS 1596), (anon_sym_async, ACTIONS 73), (anon_sym_LBRACK, ACTIONS 59),
    (anon_sym_LBRACE, ACTIONS 61), (anon_sym_global, ACTIONS 63),
    (anon_sym_nonlocal, ACTIONS 65), (anon_sym_exec, ACTIONS 67), (anon_sym_type, ACTIONS 69),
    (anon_sym_mut, ACTIONS 73), (anon_sym_out, ACTIONS 73), (anon_sym_DASH, ACTIONS 79),
    (anon_sym_PLUS, ACTIONS 79), (anon_sym_ref, ACTIONS 81), (anon_sym_var, ACTIONS 81),
    (anon_sym_not, ACTIONS 83), (anon_sym_TILDE, ACTIONS 79), (anon_sym_lambda, ACTIONS 85),
    (anon_sym_yield, ACTIONS 87), (sym_ellipsis, ACTIONS 89), (anon_sym___mlir_type, ACTIONS 91),
    (sym_integer, ACTIONS 93), (sym_float, ACTIONS 89), (anon_sym_await, ACTIONS 95),
    (sym_true, ACTIONS 93), (sym_false, ACTIONS 93), (sym_none, ACTIONS 93),
    (sym_comment, ACTIONS 3), (sym_line_continuation, ACTIONS 3), (sym__newline, ACTIONS 1786),
    (sym__indent, ACTIONS 1788), (sym_string_start, ACTIONS 97)]"

definition parse_table_1269 :: "(nat \<times> nat) list" where "parse_table_1269 = [
    (sym__simple_statements, STATE 4631), (sym_import_statement, STATE 11814),
    (sym_future_import_statement, STATE 11814), (sym_import_from_statement, STATE 11814),
    (sym_print_statement, STATE 11814), (sym_assert_statement, STATE 11814),
    (sym_comptime_assert_statement, STATE 11814), (sym_expression_statement, STATE 11814),
    (sym_tuple_expression, STATE 12425), (sym_named_expression, STATE 7969),
    (sym__named_expression_lhs, STATE 12752), (sym_return_statement, STATE 11814),
    (sym_delete_statement, STATE 11814), (sym_raise_statement, STATE 11814),
    (sym_pass_statement, STATE 11814), (sym_break_statement, STATE 11814),
    (sym_continue_statement, STATE 11814), (sym_global_statement, STATE 11814),
    (sym_nonlocal_statement, STATE 11814), (sym_exec_statement, STATE 11814),
    (sym_type_alias_statement, STATE 11814), (sym_parameterized_alias_statement, STATE 11814),
    (sym_pattern, STATE 8086), (sym_tuple_pattern, STATE 8101), (sym_list_pattern, STATE 8101),
    (sym_list_splat_pattern, STATE 6819), (sym_as_pattern, STATE 7969),
    (sym_expression, STATE 9883), (sym_primary_expression, STATE 7326),
    (sym_comptime_expression, STATE 7017), (sym_transfer_expression, STATE 7017),
    (sym_not_operator, STATE 7969), (sym_boolean_operator, STATE 7969),
    (sym_binary_operator, STATE 7017), (sym_unary_operator, STATE 7017),
    (sym_comparison_operator, STATE 7969), (sym_lambda, STATE 7969),
    (sym_assignment, STATE 12425), (sym_augmented_assignment, STATE 12425),
    (sym_pattern_list, STATE 8578), (sym_yield, STATE 12425), (sym_attribute, STATE 6836),
    (sym_subscript, STATE 6838), (sym_call, STATE 6845), (sym_mlir_type, STATE 7017),
    (sym_list, STATE 7017), (sym_set, STATE 7017), (sym_tuple, STATE 7017),
    (sym_dictionary, STATE 7017), (sym_struct_literal, STATE 7017),
    (sym_list_comprehension, STATE 7017), (sym_dictionary_comprehension, STATE 7017),
    (sym_set_comprehension, STATE 7017), (sym_generator_expression, STATE 7017),
    (sym_parenthesized_expression, STATE 7017), (sym_conditional_expression, STATE 7969),
    (sym_concatenated_string, STATE 7017), (sym_string, STATE 6751), (sym_await, STATE 7017),
    (sym_identifier, ACTIONS 9), (anon_sym_import, ACTIONS 11), (anon_sym_from, ACTIONS 13),
    (anon_sym_LPAREN, ACTIONS 15), (anon_sym_STAR, ACTIONS 17), (anon_sym_print, ACTIONS 19),
    (anon_sym_comptime, ACTIONS 335), (anon_sym_assert, ACTIONS 23),
    (anon_sym___comptime_assert, ACTIONS 25), (anon_sym_return, ACTIONS 27),
    (anon_sym_del, ACTIONS 29), (anon_sym_raise, ACTIONS 31), (anon_sym_pass, ACTIONS 33),
    (anon_sym_break, ACTIONS 35), (anon_sym_continue, ACTIONS 37),
    (anon_sym_match, ACTIONS 1596), (anon_sym_async, ACTIONS 73), (anon_sym_LBRACK, ACTIONS 59),
    (anon_sym_LBRACE, ACTIONS 61), (anon_sym_global, ACTIONS 63),
    (anon_sym_nonlocal, ACTIONS 65), (anon_sym_exec, ACTIONS 67), (anon_sym_type, ACTIONS 69),
    (anon_sym_mut, ACTIONS 73), (anon_sym_out, ACTIONS 73), (anon_sym_DASH, ACTIONS 79),
    (anon_sym_PLUS, ACTIONS 79), (anon_sym_ref, ACTIONS 81), (anon_sym_var, ACTIONS 81),
    (anon_sym_not, ACTIONS 83), (anon_sym_TILDE, ACTIONS 79), (anon_sym_lambda, ACTIONS 85),
    (anon_sym_yield, ACTIONS 87), (sym_ellipsis, ACTIONS 89), (anon_sym___mlir_type, ACTIONS 91),
    (sym_integer, ACTIONS 93), (sym_float, ACTIONS 89), (anon_sym_await, ACTIONS 95),
    (sym_true, ACTIONS 93), (sym_false, ACTIONS 93), (sym_none, ACTIONS 93),
    (sym_comment, ACTIONS 3), (sym_line_continuation, ACTIONS 3), (sym__newline, ACTIONS 1790),
    (sym__indent, ACTIONS 1792), (sym_string_start, ACTIONS 97)]"

definition parse_table_1270 :: "(nat \<times> nat) list" where "parse_table_1270 = [
    (sym__simple_statements, STATE 4633), (sym_import_statement, STATE 11814),
    (sym_future_import_statement, STATE 11814), (sym_import_from_statement, STATE 11814),
    (sym_print_statement, STATE 11814), (sym_assert_statement, STATE 11814),
    (sym_comptime_assert_statement, STATE 11814), (sym_expression_statement, STATE 11814),
    (sym_tuple_expression, STATE 12425), (sym_named_expression, STATE 7969),
    (sym__named_expression_lhs, STATE 12752), (sym_return_statement, STATE 11814),
    (sym_delete_statement, STATE 11814), (sym_raise_statement, STATE 11814),
    (sym_pass_statement, STATE 11814), (sym_break_statement, STATE 11814),
    (sym_continue_statement, STATE 11814), (sym_global_statement, STATE 11814),
    (sym_nonlocal_statement, STATE 11814), (sym_exec_statement, STATE 11814),
    (sym_type_alias_statement, STATE 11814), (sym_parameterized_alias_statement, STATE 11814),
    (sym_pattern, STATE 8086), (sym_tuple_pattern, STATE 8101), (sym_list_pattern, STATE 8101),
    (sym_list_splat_pattern, STATE 6819), (sym_as_pattern, STATE 7969),
    (sym_expression, STATE 9883), (sym_primary_expression, STATE 7326),
    (sym_comptime_expression, STATE 7017), (sym_transfer_expression, STATE 7017),
    (sym_not_operator, STATE 7969), (sym_boolean_operator, STATE 7969),
    (sym_binary_operator, STATE 7017), (sym_unary_operator, STATE 7017),
    (sym_comparison_operator, STATE 7969), (sym_lambda, STATE 7969),
    (sym_assignment, STATE 12425), (sym_augmented_assignment, STATE 12425),
    (sym_pattern_list, STATE 8578), (sym_yield, STATE 12425), (sym_attribute, STATE 6836),
    (sym_subscript, STATE 6838), (sym_call, STATE 6845), (sym_mlir_type, STATE 7017),
    (sym_list, STATE 7017), (sym_set, STATE 7017), (sym_tuple, STATE 7017),
    (sym_dictionary, STATE 7017), (sym_struct_literal, STATE 7017),
    (sym_list_comprehension, STATE 7017), (sym_dictionary_comprehension, STATE 7017),
    (sym_set_comprehension, STATE 7017), (sym_generator_expression, STATE 7017),
    (sym_parenthesized_expression, STATE 7017), (sym_conditional_expression, STATE 7969),
    (sym_concatenated_string, STATE 7017), (sym_string, STATE 6751), (sym_await, STATE 7017),
    (sym_identifier, ACTIONS 9), (anon_sym_import, ACTIONS 11), (anon_sym_from, ACTIONS 13),
    (anon_sym_LPAREN, ACTIONS 15), (anon_sym_STAR, ACTIONS 17), (anon_sym_print, ACTIONS 19),
    (anon_sym_comptime, ACTIONS 335), (anon_sym_assert, ACTIONS 23),
    (anon_sym___comptime_assert, ACTIONS 25), (anon_sym_return, ACTIONS 27),
    (anon_sym_del, ACTIONS 29), (anon_sym_raise, ACTIONS 31), (anon_sym_pass, ACTIONS 33),
    (anon_sym_break, ACTIONS 35), (anon_sym_continue, ACTIONS 37),
    (anon_sym_match, ACTIONS 1596), (anon_sym_async, ACTIONS 73), (anon_sym_LBRACK, ACTIONS 59),
    (anon_sym_LBRACE, ACTIONS 61), (anon_sym_global, ACTIONS 63),
    (anon_sym_nonlocal, ACTIONS 65), (anon_sym_exec, ACTIONS 67), (anon_sym_type, ACTIONS 69),
    (anon_sym_mut, ACTIONS 73), (anon_sym_out, ACTIONS 73), (anon_sym_DASH, ACTIONS 79),
    (anon_sym_PLUS, ACTIONS 79), (anon_sym_ref, ACTIONS 81), (anon_sym_var, ACTIONS 81),
    (anon_sym_not, ACTIONS 83), (anon_sym_TILDE, ACTIONS 79), (anon_sym_lambda, ACTIONS 85),
    (anon_sym_yield, ACTIONS 87), (sym_ellipsis, ACTIONS 89), (anon_sym___mlir_type, ACTIONS 91),
    (sym_integer, ACTIONS 93), (sym_float, ACTIONS 89), (anon_sym_await, ACTIONS 95),
    (sym_true, ACTIONS 93), (sym_false, ACTIONS 93), (sym_none, ACTIONS 93),
    (sym_comment, ACTIONS 3), (sym_line_continuation, ACTIONS 3), (sym__newline, ACTIONS 1794),
    (sym__indent, ACTIONS 1796), (sym_string_start, ACTIONS 97)]"

definition parse_table_1271 :: "(nat \<times> nat) list" where "parse_table_1271 = [
    (sym__simple_statements, STATE 4637), (sym_import_statement, STATE 11814),
    (sym_future_import_statement, STATE 11814), (sym_import_from_statement, STATE 11814),
    (sym_print_statement, STATE 11814), (sym_assert_statement, STATE 11814),
    (sym_comptime_assert_statement, STATE 11814), (sym_expression_statement, STATE 11814),
    (sym_tuple_expression, STATE 12425), (sym_named_expression, STATE 7969),
    (sym__named_expression_lhs, STATE 12752), (sym_return_statement, STATE 11814),
    (sym_delete_statement, STATE 11814), (sym_raise_statement, STATE 11814),
    (sym_pass_statement, STATE 11814), (sym_break_statement, STATE 11814),
    (sym_continue_statement, STATE 11814), (sym_global_statement, STATE 11814),
    (sym_nonlocal_statement, STATE 11814), (sym_exec_statement, STATE 11814),
    (sym_type_alias_statement, STATE 11814), (sym_parameterized_alias_statement, STATE 11814),
    (sym_pattern, STATE 8086), (sym_tuple_pattern, STATE 8101), (sym_list_pattern, STATE 8101),
    (sym_list_splat_pattern, STATE 6819), (sym_as_pattern, STATE 7969),
    (sym_expression, STATE 9883), (sym_primary_expression, STATE 7326),
    (sym_comptime_expression, STATE 7017), (sym_transfer_expression, STATE 7017),
    (sym_not_operator, STATE 7969), (sym_boolean_operator, STATE 7969),
    (sym_binary_operator, STATE 7017), (sym_unary_operator, STATE 7017),
    (sym_comparison_operator, STATE 7969), (sym_lambda, STATE 7969),
    (sym_assignment, STATE 12425), (sym_augmented_assignment, STATE 12425),
    (sym_pattern_list, STATE 8578), (sym_yield, STATE 12425), (sym_attribute, STATE 6836),
    (sym_subscript, STATE 6838), (sym_call, STATE 6845), (sym_mlir_type, STATE 7017),
    (sym_list, STATE 7017), (sym_set, STATE 7017), (sym_tuple, STATE 7017),
    (sym_dictionary, STATE 7017), (sym_struct_literal, STATE 7017),
    (sym_list_comprehension, STATE 7017), (sym_dictionary_comprehension, STATE 7017),
    (sym_set_comprehension, STATE 7017), (sym_generator_expression, STATE 7017),
    (sym_parenthesized_expression, STATE 7017), (sym_conditional_expression, STATE 7969),
    (sym_concatenated_string, STATE 7017), (sym_string, STATE 6751), (sym_await, STATE 7017),
    (sym_identifier, ACTIONS 9), (anon_sym_import, ACTIONS 11), (anon_sym_from, ACTIONS 13),
    (anon_sym_LPAREN, ACTIONS 15), (anon_sym_STAR, ACTIONS 17), (anon_sym_print, ACTIONS 19),
    (anon_sym_comptime, ACTIONS 335), (anon_sym_assert, ACTIONS 23),
    (anon_sym___comptime_assert, ACTIONS 25), (anon_sym_return, ACTIONS 27),
    (anon_sym_del, ACTIONS 29), (anon_sym_raise, ACTIONS 31), (anon_sym_pass, ACTIONS 33),
    (anon_sym_break, ACTIONS 35), (anon_sym_continue, ACTIONS 37),
    (anon_sym_match, ACTIONS 1596), (anon_sym_async, ACTIONS 73), (anon_sym_LBRACK, ACTIONS 59),
    (anon_sym_LBRACE, ACTIONS 61), (anon_sym_global, ACTIONS 63),
    (anon_sym_nonlocal, ACTIONS 65), (anon_sym_exec, ACTIONS 67), (anon_sym_type, ACTIONS 69),
    (anon_sym_mut, ACTIONS 73), (anon_sym_out, ACTIONS 73), (anon_sym_DASH, ACTIONS 79),
    (anon_sym_PLUS, ACTIONS 79), (anon_sym_ref, ACTIONS 81), (anon_sym_var, ACTIONS 81),
    (anon_sym_not, ACTIONS 83), (anon_sym_TILDE, ACTIONS 79), (anon_sym_lambda, ACTIONS 85),
    (anon_sym_yield, ACTIONS 87), (sym_ellipsis, ACTIONS 89), (anon_sym___mlir_type, ACTIONS 91),
    (sym_integer, ACTIONS 93), (sym_float, ACTIONS 89), (anon_sym_await, ACTIONS 95),
    (sym_true, ACTIONS 93), (sym_false, ACTIONS 93), (sym_none, ACTIONS 93),
    (sym_comment, ACTIONS 3), (sym_line_continuation, ACTIONS 3), (sym__newline, ACTIONS 1798),
    (sym__indent, ACTIONS 1800), (sym_string_start, ACTIONS 97)]"

definition parse_table_1272 :: "(nat \<times> nat) list" where "parse_table_1272 = [
    (sym__simple_statements, STATE 4639), (sym_import_statement, STATE 11814),
    (sym_future_import_statement, STATE 11814), (sym_import_from_statement, STATE 11814),
    (sym_print_statement, STATE 11814), (sym_assert_statement, STATE 11814),
    (sym_comptime_assert_statement, STATE 11814), (sym_expression_statement, STATE 11814),
    (sym_tuple_expression, STATE 12425), (sym_named_expression, STATE 7969),
    (sym__named_expression_lhs, STATE 12752), (sym_return_statement, STATE 11814),
    (sym_delete_statement, STATE 11814), (sym_raise_statement, STATE 11814),
    (sym_pass_statement, STATE 11814), (sym_break_statement, STATE 11814),
    (sym_continue_statement, STATE 11814), (sym_global_statement, STATE 11814),
    (sym_nonlocal_statement, STATE 11814), (sym_exec_statement, STATE 11814),
    (sym_type_alias_statement, STATE 11814), (sym_parameterized_alias_statement, STATE 11814),
    (sym_pattern, STATE 8086), (sym_tuple_pattern, STATE 8101), (sym_list_pattern, STATE 8101),
    (sym_list_splat_pattern, STATE 6819), (sym_as_pattern, STATE 7969),
    (sym_expression, STATE 9883), (sym_primary_expression, STATE 7326),
    (sym_comptime_expression, STATE 7017), (sym_transfer_expression, STATE 7017),
    (sym_not_operator, STATE 7969), (sym_boolean_operator, STATE 7969),
    (sym_binary_operator, STATE 7017), (sym_unary_operator, STATE 7017),
    (sym_comparison_operator, STATE 7969), (sym_lambda, STATE 7969),
    (sym_assignment, STATE 12425), (sym_augmented_assignment, STATE 12425),
    (sym_pattern_list, STATE 8578), (sym_yield, STATE 12425), (sym_attribute, STATE 6836),
    (sym_subscript, STATE 6838), (sym_call, STATE 6845), (sym_mlir_type, STATE 7017),
    (sym_list, STATE 7017), (sym_set, STATE 7017), (sym_tuple, STATE 7017),
    (sym_dictionary, STATE 7017), (sym_struct_literal, STATE 7017),
    (sym_list_comprehension, STATE 7017), (sym_dictionary_comprehension, STATE 7017),
    (sym_set_comprehension, STATE 7017), (sym_generator_expression, STATE 7017),
    (sym_parenthesized_expression, STATE 7017), (sym_conditional_expression, STATE 7969),
    (sym_concatenated_string, STATE 7017), (sym_string, STATE 6751), (sym_await, STATE 7017),
    (sym_identifier, ACTIONS 9), (anon_sym_import, ACTIONS 11), (anon_sym_from, ACTIONS 13),
    (anon_sym_LPAREN, ACTIONS 15), (anon_sym_STAR, ACTIONS 17), (anon_sym_print, ACTIONS 19),
    (anon_sym_comptime, ACTIONS 335), (anon_sym_assert, ACTIONS 23),
    (anon_sym___comptime_assert, ACTIONS 25), (anon_sym_return, ACTIONS 27),
    (anon_sym_del, ACTIONS 29), (anon_sym_raise, ACTIONS 31), (anon_sym_pass, ACTIONS 33),
    (anon_sym_break, ACTIONS 35), (anon_sym_continue, ACTIONS 37),
    (anon_sym_match, ACTIONS 1596), (anon_sym_async, ACTIONS 73), (anon_sym_LBRACK, ACTIONS 59),
    (anon_sym_LBRACE, ACTIONS 61), (anon_sym_global, ACTIONS 63),
    (anon_sym_nonlocal, ACTIONS 65), (anon_sym_exec, ACTIONS 67), (anon_sym_type, ACTIONS 69),
    (anon_sym_mut, ACTIONS 73), (anon_sym_out, ACTIONS 73), (anon_sym_DASH, ACTIONS 79),
    (anon_sym_PLUS, ACTIONS 79), (anon_sym_ref, ACTIONS 81), (anon_sym_var, ACTIONS 81),
    (anon_sym_not, ACTIONS 83), (anon_sym_TILDE, ACTIONS 79), (anon_sym_lambda, ACTIONS 85),
    (anon_sym_yield, ACTIONS 87), (sym_ellipsis, ACTIONS 89), (anon_sym___mlir_type, ACTIONS 91),
    (sym_integer, ACTIONS 93), (sym_float, ACTIONS 89), (anon_sym_await, ACTIONS 95),
    (sym_true, ACTIONS 93), (sym_false, ACTIONS 93), (sym_none, ACTIONS 93),
    (sym_comment, ACTIONS 3), (sym_line_continuation, ACTIONS 3), (sym__newline, ACTIONS 1802),
    (sym__indent, ACTIONS 1804), (sym_string_start, ACTIONS 97)]"

definition parse_table_1273 :: "(nat \<times> nat) list" where "parse_table_1273 = [
    (sym__simple_statements, STATE 4752), (sym_import_statement, STATE 12239),
    (sym_future_import_statement, STATE 12239), (sym_import_from_statement, STATE 12239),
    (sym_print_statement, STATE 12239), (sym_assert_statement, STATE 12239),
    (sym_comptime_assert_statement, STATE 12239), (sym_expression_statement, STATE 12239),
    (sym_tuple_expression, STATE 12425), (sym_named_expression, STATE 7969),
    (sym__named_expression_lhs, STATE 12752), (sym_return_statement, STATE 12239),
    (sym_delete_statement, STATE 12239), (sym_raise_statement, STATE 12239),
    (sym_pass_statement, STATE 12239), (sym_break_statement, STATE 12239),
    (sym_continue_statement, STATE 12239), (sym_global_statement, STATE 12239),
    (sym_nonlocal_statement, STATE 12239), (sym_exec_statement, STATE 12239),
    (sym_type_alias_statement, STATE 12239), (sym_parameterized_alias_statement, STATE 12239),
    (sym_pattern, STATE 8086), (sym_tuple_pattern, STATE 8101), (sym_list_pattern, STATE 8101),
    (sym_list_splat_pattern, STATE 6819), (sym_as_pattern, STATE 7969),
    (sym_expression, STATE 9883), (sym_primary_expression, STATE 7326),
    (sym_comptime_expression, STATE 7017), (sym_transfer_expression, STATE 7017),
    (sym_not_operator, STATE 7969), (sym_boolean_operator, STATE 7969),
    (sym_binary_operator, STATE 7017), (sym_unary_operator, STATE 7017),
    (sym_comparison_operator, STATE 7969), (sym_lambda, STATE 7969),
    (sym_assignment, STATE 12425), (sym_augmented_assignment, STATE 12425),
    (sym_pattern_list, STATE 8578), (sym_yield, STATE 12425), (sym_attribute, STATE 6836),
    (sym_subscript, STATE 6838), (sym_call, STATE 6845), (sym_mlir_type, STATE 7017),
    (sym_list, STATE 7017), (sym_set, STATE 7017), (sym_tuple, STATE 7017),
    (sym_dictionary, STATE 7017), (sym_struct_literal, STATE 7017),
    (sym_list_comprehension, STATE 7017), (sym_dictionary_comprehension, STATE 7017),
    (sym_set_comprehension, STATE 7017), (sym_generator_expression, STATE 7017),
    (sym_parenthesized_expression, STATE 7017), (sym_conditional_expression, STATE 7969),
    (sym_concatenated_string, STATE 7017), (sym_string, STATE 6751), (sym_await, STATE 7017),
    (sym_identifier, ACTIONS 9), (anon_sym_import, ACTIONS 11), (anon_sym_from, ACTIONS 13),
    (anon_sym_LPAREN, ACTIONS 15), (anon_sym_STAR, ACTIONS 17), (anon_sym_print, ACTIONS 19),
    (anon_sym_comptime, ACTIONS 335), (anon_sym_assert, ACTIONS 23),
    (anon_sym___comptime_assert, ACTIONS 25), (anon_sym_return, ACTIONS 27),
    (anon_sym_del, ACTIONS 29), (anon_sym_raise, ACTIONS 31), (anon_sym_pass, ACTIONS 33),
    (anon_sym_break, ACTIONS 35), (anon_sym_continue, ACTIONS 37),
    (anon_sym_match, ACTIONS 1596), (anon_sym_async, ACTIONS 73), (anon_sym_LBRACK, ACTIONS 59),
    (anon_sym_LBRACE, ACTIONS 61), (anon_sym_global, ACTIONS 63),
    (anon_sym_nonlocal, ACTIONS 65), (anon_sym_exec, ACTIONS 67), (anon_sym_type, ACTIONS 69),
    (anon_sym_mut, ACTIONS 73), (anon_sym_out, ACTIONS 73), (anon_sym_DASH, ACTIONS 79),
    (anon_sym_PLUS, ACTIONS 79), (anon_sym_ref, ACTIONS 81), (anon_sym_var, ACTIONS 81),
    (anon_sym_not, ACTIONS 83), (anon_sym_TILDE, ACTIONS 79), (anon_sym_lambda, ACTIONS 85),
    (anon_sym_yield, ACTIONS 87), (sym_ellipsis, ACTIONS 89), (anon_sym___mlir_type, ACTIONS 91),
    (sym_integer, ACTIONS 93), (sym_float, ACTIONS 89), (anon_sym_await, ACTIONS 95),
    (sym_true, ACTIONS 93), (sym_false, ACTIONS 93), (sym_none, ACTIONS 93),
    (sym_comment, ACTIONS 3), (sym_line_continuation, ACTIONS 3), (sym__newline, ACTIONS 1806),
    (sym__indent, ACTIONS 1808), (sym_string_start, ACTIONS 97)]"

definition parse_table_1274 :: "(nat \<times> nat) list" where "parse_table_1274 = [
    (sym__simple_statements, STATE 5155), (sym_import_statement, STATE 12239),
    (sym_future_import_statement, STATE 12239), (sym_import_from_statement, STATE 12239),
    (sym_print_statement, STATE 12239), (sym_assert_statement, STATE 12239),
    (sym_comptime_assert_statement, STATE 12239), (sym_expression_statement, STATE 12239),
    (sym_tuple_expression, STATE 12425), (sym_named_expression, STATE 7969),
    (sym__named_expression_lhs, STATE 12752), (sym_return_statement, STATE 12239),
    (sym_delete_statement, STATE 12239), (sym_raise_statement, STATE 12239),
    (sym_pass_statement, STATE 12239), (sym_break_statement, STATE 12239),
    (sym_continue_statement, STATE 12239), (sym_global_statement, STATE 12239),
    (sym_nonlocal_statement, STATE 12239), (sym_exec_statement, STATE 12239),
    (sym_type_alias_statement, STATE 12239), (sym_parameterized_alias_statement, STATE 12239),
    (sym_pattern, STATE 8086), (sym_tuple_pattern, STATE 8101), (sym_list_pattern, STATE 8101),
    (sym_list_splat_pattern, STATE 6819), (sym_as_pattern, STATE 7969),
    (sym_expression, STATE 9883), (sym_primary_expression, STATE 7326),
    (sym_comptime_expression, STATE 7017), (sym_transfer_expression, STATE 7017),
    (sym_not_operator, STATE 7969), (sym_boolean_operator, STATE 7969),
    (sym_binary_operator, STATE 7017), (sym_unary_operator, STATE 7017),
    (sym_comparison_operator, STATE 7969), (sym_lambda, STATE 7969),
    (sym_assignment, STATE 12425), (sym_augmented_assignment, STATE 12425),
    (sym_pattern_list, STATE 8578), (sym_yield, STATE 12425), (sym_attribute, STATE 6836),
    (sym_subscript, STATE 6838), (sym_call, STATE 6845), (sym_mlir_type, STATE 7017),
    (sym_list, STATE 7017), (sym_set, STATE 7017), (sym_tuple, STATE 7017),
    (sym_dictionary, STATE 7017), (sym_struct_literal, STATE 7017),
    (sym_list_comprehension, STATE 7017), (sym_dictionary_comprehension, STATE 7017),
    (sym_set_comprehension, STATE 7017), (sym_generator_expression, STATE 7017),
    (sym_parenthesized_expression, STATE 7017), (sym_conditional_expression, STATE 7969),
    (sym_concatenated_string, STATE 7017), (sym_string, STATE 6751), (sym_await, STATE 7017),
    (sym_identifier, ACTIONS 9), (anon_sym_import, ACTIONS 11), (anon_sym_from, ACTIONS 13),
    (anon_sym_LPAREN, ACTIONS 15), (anon_sym_STAR, ACTIONS 17), (anon_sym_print, ACTIONS 19),
    (anon_sym_comptime, ACTIONS 335), (anon_sym_assert, ACTIONS 23),
    (anon_sym___comptime_assert, ACTIONS 25), (anon_sym_return, ACTIONS 27),
    (anon_sym_del, ACTIONS 29), (anon_sym_raise, ACTIONS 31), (anon_sym_pass, ACTIONS 33),
    (anon_sym_break, ACTIONS 35), (anon_sym_continue, ACTIONS 37),
    (anon_sym_match, ACTIONS 1596), (anon_sym_async, ACTIONS 73), (anon_sym_LBRACK, ACTIONS 59),
    (anon_sym_LBRACE, ACTIONS 61), (anon_sym_global, ACTIONS 63),
    (anon_sym_nonlocal, ACTIONS 65), (anon_sym_exec, ACTIONS 67), (anon_sym_type, ACTIONS 69),
    (anon_sym_mut, ACTIONS 73), (anon_sym_out, ACTIONS 73), (anon_sym_DASH, ACTIONS 79),
    (anon_sym_PLUS, ACTIONS 79), (anon_sym_ref, ACTIONS 81), (anon_sym_var, ACTIONS 81),
    (anon_sym_not, ACTIONS 83), (anon_sym_TILDE, ACTIONS 79), (anon_sym_lambda, ACTIONS 85),
    (anon_sym_yield, ACTIONS 87), (sym_ellipsis, ACTIONS 89), (anon_sym___mlir_type, ACTIONS 91),
    (sym_integer, ACTIONS 93), (sym_float, ACTIONS 89), (anon_sym_await, ACTIONS 95),
    (sym_true, ACTIONS 93), (sym_false, ACTIONS 93), (sym_none, ACTIONS 93),
    (sym_comment, ACTIONS 3), (sym_line_continuation, ACTIONS 3), (sym__newline, ACTIONS 1810),
    (sym__indent, ACTIONS 1812), (sym_string_start, ACTIONS 97)]"

definition parse_table_1275 :: "(nat \<times> nat) list" where "parse_table_1275 = [
    (sym__simple_statements, STATE 6000), (sym_import_statement, STATE 12239),
    (sym_future_import_statement, STATE 12239), (sym_import_from_statement, STATE 12239),
    (sym_print_statement, STATE 12239), (sym_assert_statement, STATE 12239),
    (sym_comptime_assert_statement, STATE 12239), (sym_expression_statement, STATE 12239),
    (sym_tuple_expression, STATE 12425), (sym_named_expression, STATE 7969),
    (sym__named_expression_lhs, STATE 12752), (sym_return_statement, STATE 12239),
    (sym_delete_statement, STATE 12239), (sym_raise_statement, STATE 12239),
    (sym_pass_statement, STATE 12239), (sym_break_statement, STATE 12239),
    (sym_continue_statement, STATE 12239), (sym_global_statement, STATE 12239),
    (sym_nonlocal_statement, STATE 12239), (sym_exec_statement, STATE 12239),
    (sym_type_alias_statement, STATE 12239), (sym_parameterized_alias_statement, STATE 12239),
    (sym_pattern, STATE 8086), (sym_tuple_pattern, STATE 8101), (sym_list_pattern, STATE 8101),
    (sym_list_splat_pattern, STATE 6819), (sym_as_pattern, STATE 7969),
    (sym_expression, STATE 9883), (sym_primary_expression, STATE 7326),
    (sym_comptime_expression, STATE 7017), (sym_transfer_expression, STATE 7017),
    (sym_not_operator, STATE 7969), (sym_boolean_operator, STATE 7969),
    (sym_binary_operator, STATE 7017), (sym_unary_operator, STATE 7017),
    (sym_comparison_operator, STATE 7969), (sym_lambda, STATE 7969),
    (sym_assignment, STATE 12425), (sym_augmented_assignment, STATE 12425),
    (sym_pattern_list, STATE 8578), (sym_yield, STATE 12425), (sym_attribute, STATE 6836),
    (sym_subscript, STATE 6838), (sym_call, STATE 6845), (sym_mlir_type, STATE 7017),
    (sym_list, STATE 7017), (sym_set, STATE 7017), (sym_tuple, STATE 7017),
    (sym_dictionary, STATE 7017), (sym_struct_literal, STATE 7017),
    (sym_list_comprehension, STATE 7017), (sym_dictionary_comprehension, STATE 7017),
    (sym_set_comprehension, STATE 7017), (sym_generator_expression, STATE 7017),
    (sym_parenthesized_expression, STATE 7017), (sym_conditional_expression, STATE 7969),
    (sym_concatenated_string, STATE 7017), (sym_string, STATE 6751), (sym_await, STATE 7017),
    (sym_identifier, ACTIONS 9), (anon_sym_import, ACTIONS 11), (anon_sym_from, ACTIONS 13),
    (anon_sym_LPAREN, ACTIONS 15), (anon_sym_STAR, ACTIONS 17), (anon_sym_print, ACTIONS 19),
    (anon_sym_comptime, ACTIONS 335), (anon_sym_assert, ACTIONS 23),
    (anon_sym___comptime_assert, ACTIONS 25), (anon_sym_return, ACTIONS 27),
    (anon_sym_del, ACTIONS 29), (anon_sym_raise, ACTIONS 31), (anon_sym_pass, ACTIONS 33),
    (anon_sym_break, ACTIONS 35), (anon_sym_continue, ACTIONS 37),
    (anon_sym_match, ACTIONS 1596), (anon_sym_async, ACTIONS 73), (anon_sym_LBRACK, ACTIONS 59),
    (anon_sym_LBRACE, ACTIONS 61), (anon_sym_global, ACTIONS 63),
    (anon_sym_nonlocal, ACTIONS 65), (anon_sym_exec, ACTIONS 67), (anon_sym_type, ACTIONS 69),
    (anon_sym_mut, ACTIONS 73), (anon_sym_out, ACTIONS 73), (anon_sym_DASH, ACTIONS 79),
    (anon_sym_PLUS, ACTIONS 79), (anon_sym_ref, ACTIONS 81), (anon_sym_var, ACTIONS 81),
    (anon_sym_not, ACTIONS 83), (anon_sym_TILDE, ACTIONS 79), (anon_sym_lambda, ACTIONS 85),
    (anon_sym_yield, ACTIONS 87), (sym_ellipsis, ACTIONS 89), (anon_sym___mlir_type, ACTIONS 91),
    (sym_integer, ACTIONS 93), (sym_float, ACTIONS 89), (anon_sym_await, ACTIONS 95),
    (sym_true, ACTIONS 93), (sym_false, ACTIONS 93), (sym_none, ACTIONS 93),
    (sym_comment, ACTIONS 3), (sym_line_continuation, ACTIONS 3), (sym__newline, ACTIONS 1814),
    (sym__indent, ACTIONS 1816), (sym_string_start, ACTIONS 97)]"

definition parse_table_1276 :: "(nat \<times> nat) list" where "parse_table_1276 = [
    (sym__simple_statements, STATE 4644), (sym_import_statement, STATE 11814),
    (sym_future_import_statement, STATE 11814), (sym_import_from_statement, STATE 11814),
    (sym_print_statement, STATE 11814), (sym_assert_statement, STATE 11814),
    (sym_comptime_assert_statement, STATE 11814), (sym_expression_statement, STATE 11814),
    (sym_tuple_expression, STATE 12425), (sym_named_expression, STATE 7969),
    (sym__named_expression_lhs, STATE 12752), (sym_return_statement, STATE 11814),
    (sym_delete_statement, STATE 11814), (sym_raise_statement, STATE 11814),
    (sym_pass_statement, STATE 11814), (sym_break_statement, STATE 11814),
    (sym_continue_statement, STATE 11814), (sym_global_statement, STATE 11814),
    (sym_nonlocal_statement, STATE 11814), (sym_exec_statement, STATE 11814),
    (sym_type_alias_statement, STATE 11814), (sym_parameterized_alias_statement, STATE 11814),
    (sym_pattern, STATE 8086), (sym_tuple_pattern, STATE 8101), (sym_list_pattern, STATE 8101),
    (sym_list_splat_pattern, STATE 6819), (sym_as_pattern, STATE 7969),
    (sym_expression, STATE 9883), (sym_primary_expression, STATE 7326),
    (sym_comptime_expression, STATE 7017), (sym_transfer_expression, STATE 7017),
    (sym_not_operator, STATE 7969), (sym_boolean_operator, STATE 7969),
    (sym_binary_operator, STATE 7017), (sym_unary_operator, STATE 7017),
    (sym_comparison_operator, STATE 7969), (sym_lambda, STATE 7969),
    (sym_assignment, STATE 12425), (sym_augmented_assignment, STATE 12425),
    (sym_pattern_list, STATE 8578), (sym_yield, STATE 12425), (sym_attribute, STATE 6836),
    (sym_subscript, STATE 6838), (sym_call, STATE 6845), (sym_mlir_type, STATE 7017),
    (sym_list, STATE 7017), (sym_set, STATE 7017), (sym_tuple, STATE 7017),
    (sym_dictionary, STATE 7017), (sym_struct_literal, STATE 7017),
    (sym_list_comprehension, STATE 7017), (sym_dictionary_comprehension, STATE 7017),
    (sym_set_comprehension, STATE 7017), (sym_generator_expression, STATE 7017),
    (sym_parenthesized_expression, STATE 7017), (sym_conditional_expression, STATE 7969),
    (sym_concatenated_string, STATE 7017), (sym_string, STATE 6751), (sym_await, STATE 7017),
    (sym_identifier, ACTIONS 9), (anon_sym_import, ACTIONS 11), (anon_sym_from, ACTIONS 13),
    (anon_sym_LPAREN, ACTIONS 15), (anon_sym_STAR, ACTIONS 17), (anon_sym_print, ACTIONS 19),
    (anon_sym_comptime, ACTIONS 335), (anon_sym_assert, ACTIONS 23),
    (anon_sym___comptime_assert, ACTIONS 25), (anon_sym_return, ACTIONS 27),
    (anon_sym_del, ACTIONS 29), (anon_sym_raise, ACTIONS 31), (anon_sym_pass, ACTIONS 33),
    (anon_sym_break, ACTIONS 35), (anon_sym_continue, ACTIONS 37),
    (anon_sym_match, ACTIONS 1596), (anon_sym_async, ACTIONS 73), (anon_sym_LBRACK, ACTIONS 59),
    (anon_sym_LBRACE, ACTIONS 61), (anon_sym_global, ACTIONS 63),
    (anon_sym_nonlocal, ACTIONS 65), (anon_sym_exec, ACTIONS 67), (anon_sym_type, ACTIONS 69),
    (anon_sym_mut, ACTIONS 73), (anon_sym_out, ACTIONS 73), (anon_sym_DASH, ACTIONS 79),
    (anon_sym_PLUS, ACTIONS 79), (anon_sym_ref, ACTIONS 81), (anon_sym_var, ACTIONS 81),
    (anon_sym_not, ACTIONS 83), (anon_sym_TILDE, ACTIONS 79), (anon_sym_lambda, ACTIONS 85),
    (anon_sym_yield, ACTIONS 87), (sym_ellipsis, ACTIONS 89), (anon_sym___mlir_type, ACTIONS 91),
    (sym_integer, ACTIONS 93), (sym_float, ACTIONS 89), (anon_sym_await, ACTIONS 95),
    (sym_true, ACTIONS 93), (sym_false, ACTIONS 93), (sym_none, ACTIONS 93),
    (sym_comment, ACTIONS 3), (sym_line_continuation, ACTIONS 3), (sym__newline, ACTIONS 1818),
    (sym__indent, ACTIONS 1820), (sym_string_start, ACTIONS 97)]"

definition parse_table_1277 :: "(nat \<times> nat) list" where "parse_table_1277 = [
    (sym__simple_statements, STATE 5162), (sym_import_statement, STATE 12239),
    (sym_future_import_statement, STATE 12239), (sym_import_from_statement, STATE 12239),
    (sym_print_statement, STATE 12239), (sym_assert_statement, STATE 12239),
    (sym_comptime_assert_statement, STATE 12239), (sym_expression_statement, STATE 12239),
    (sym_tuple_expression, STATE 12425), (sym_named_expression, STATE 7969),
    (sym__named_expression_lhs, STATE 12752), (sym_return_statement, STATE 12239),
    (sym_delete_statement, STATE 12239), (sym_raise_statement, STATE 12239),
    (sym_pass_statement, STATE 12239), (sym_break_statement, STATE 12239),
    (sym_continue_statement, STATE 12239), (sym_global_statement, STATE 12239),
    (sym_nonlocal_statement, STATE 12239), (sym_exec_statement, STATE 12239),
    (sym_type_alias_statement, STATE 12239), (sym_parameterized_alias_statement, STATE 12239),
    (sym_pattern, STATE 8086), (sym_tuple_pattern, STATE 8101), (sym_list_pattern, STATE 8101),
    (sym_list_splat_pattern, STATE 6819), (sym_as_pattern, STATE 7969),
    (sym_expression, STATE 9883), (sym_primary_expression, STATE 7326),
    (sym_comptime_expression, STATE 7017), (sym_transfer_expression, STATE 7017),
    (sym_not_operator, STATE 7969), (sym_boolean_operator, STATE 7969),
    (sym_binary_operator, STATE 7017), (sym_unary_operator, STATE 7017),
    (sym_comparison_operator, STATE 7969), (sym_lambda, STATE 7969),
    (sym_assignment, STATE 12425), (sym_augmented_assignment, STATE 12425),
    (sym_pattern_list, STATE 8578), (sym_yield, STATE 12425), (sym_attribute, STATE 6836),
    (sym_subscript, STATE 6838), (sym_call, STATE 6845), (sym_mlir_type, STATE 7017),
    (sym_list, STATE 7017), (sym_set, STATE 7017), (sym_tuple, STATE 7017),
    (sym_dictionary, STATE 7017), (sym_struct_literal, STATE 7017),
    (sym_list_comprehension, STATE 7017), (sym_dictionary_comprehension, STATE 7017),
    (sym_set_comprehension, STATE 7017), (sym_generator_expression, STATE 7017),
    (sym_parenthesized_expression, STATE 7017), (sym_conditional_expression, STATE 7969),
    (sym_concatenated_string, STATE 7017), (sym_string, STATE 6751), (sym_await, STATE 7017),
    (sym_identifier, ACTIONS 9), (anon_sym_import, ACTIONS 11), (anon_sym_from, ACTIONS 13),
    (anon_sym_LPAREN, ACTIONS 15), (anon_sym_STAR, ACTIONS 17), (anon_sym_print, ACTIONS 19),
    (anon_sym_comptime, ACTIONS 335), (anon_sym_assert, ACTIONS 23),
    (anon_sym___comptime_assert, ACTIONS 25), (anon_sym_return, ACTIONS 27),
    (anon_sym_del, ACTIONS 29), (anon_sym_raise, ACTIONS 31), (anon_sym_pass, ACTIONS 33),
    (anon_sym_break, ACTIONS 35), (anon_sym_continue, ACTIONS 37),
    (anon_sym_match, ACTIONS 1596), (anon_sym_async, ACTIONS 73), (anon_sym_LBRACK, ACTIONS 59),
    (anon_sym_LBRACE, ACTIONS 61), (anon_sym_global, ACTIONS 63),
    (anon_sym_nonlocal, ACTIONS 65), (anon_sym_exec, ACTIONS 67), (anon_sym_type, ACTIONS 69),
    (anon_sym_mut, ACTIONS 73), (anon_sym_out, ACTIONS 73), (anon_sym_DASH, ACTIONS 79),
    (anon_sym_PLUS, ACTIONS 79), (anon_sym_ref, ACTIONS 81), (anon_sym_var, ACTIONS 81),
    (anon_sym_not, ACTIONS 83), (anon_sym_TILDE, ACTIONS 79), (anon_sym_lambda, ACTIONS 85),
    (anon_sym_yield, ACTIONS 87), (sym_ellipsis, ACTIONS 89), (anon_sym___mlir_type, ACTIONS 91),
    (sym_integer, ACTIONS 93), (sym_float, ACTIONS 89), (anon_sym_await, ACTIONS 95),
    (sym_true, ACTIONS 93), (sym_false, ACTIONS 93), (sym_none, ACTIONS 93),
    (sym_comment, ACTIONS 3), (sym_line_continuation, ACTIONS 3), (sym__newline, ACTIONS 1822),
    (sym__indent, ACTIONS 1824), (sym_string_start, ACTIONS 97)]"

definition parse_table_1278 :: "(nat \<times> nat) list" where "parse_table_1278 = [
    (sym__simple_statements, STATE 5163), (sym_import_statement, STATE 12239),
    (sym_future_import_statement, STATE 12239), (sym_import_from_statement, STATE 12239),
    (sym_print_statement, STATE 12239), (sym_assert_statement, STATE 12239),
    (sym_comptime_assert_statement, STATE 12239), (sym_expression_statement, STATE 12239),
    (sym_tuple_expression, STATE 12425), (sym_named_expression, STATE 7969),
    (sym__named_expression_lhs, STATE 12752), (sym_return_statement, STATE 12239),
    (sym_delete_statement, STATE 12239), (sym_raise_statement, STATE 12239),
    (sym_pass_statement, STATE 12239), (sym_break_statement, STATE 12239),
    (sym_continue_statement, STATE 12239), (sym_global_statement, STATE 12239),
    (sym_nonlocal_statement, STATE 12239), (sym_exec_statement, STATE 12239),
    (sym_type_alias_statement, STATE 12239), (sym_parameterized_alias_statement, STATE 12239),
    (sym_pattern, STATE 8086), (sym_tuple_pattern, STATE 8101), (sym_list_pattern, STATE 8101),
    (sym_list_splat_pattern, STATE 6819), (sym_as_pattern, STATE 7969),
    (sym_expression, STATE 9883), (sym_primary_expression, STATE 7326),
    (sym_comptime_expression, STATE 7017), (sym_transfer_expression, STATE 7017),
    (sym_not_operator, STATE 7969), (sym_boolean_operator, STATE 7969),
    (sym_binary_operator, STATE 7017), (sym_unary_operator, STATE 7017),
    (sym_comparison_operator, STATE 7969), (sym_lambda, STATE 7969),
    (sym_assignment, STATE 12425), (sym_augmented_assignment, STATE 12425),
    (sym_pattern_list, STATE 8578), (sym_yield, STATE 12425), (sym_attribute, STATE 6836),
    (sym_subscript, STATE 6838), (sym_call, STATE 6845), (sym_mlir_type, STATE 7017),
    (sym_list, STATE 7017), (sym_set, STATE 7017), (sym_tuple, STATE 7017),
    (sym_dictionary, STATE 7017), (sym_struct_literal, STATE 7017),
    (sym_list_comprehension, STATE 7017), (sym_dictionary_comprehension, STATE 7017),
    (sym_set_comprehension, STATE 7017), (sym_generator_expression, STATE 7017),
    (sym_parenthesized_expression, STATE 7017), (sym_conditional_expression, STATE 7969),
    (sym_concatenated_string, STATE 7017), (sym_string, STATE 6751), (sym_await, STATE 7017),
    (sym_identifier, ACTIONS 9), (anon_sym_import, ACTIONS 11), (anon_sym_from, ACTIONS 13),
    (anon_sym_LPAREN, ACTIONS 15), (anon_sym_STAR, ACTIONS 17), (anon_sym_print, ACTIONS 19),
    (anon_sym_comptime, ACTIONS 335), (anon_sym_assert, ACTIONS 23),
    (anon_sym___comptime_assert, ACTIONS 25), (anon_sym_return, ACTIONS 27),
    (anon_sym_del, ACTIONS 29), (anon_sym_raise, ACTIONS 31), (anon_sym_pass, ACTIONS 33),
    (anon_sym_break, ACTIONS 35), (anon_sym_continue, ACTIONS 37),
    (anon_sym_match, ACTIONS 1596), (anon_sym_async, ACTIONS 73), (anon_sym_LBRACK, ACTIONS 59),
    (anon_sym_LBRACE, ACTIONS 61), (anon_sym_global, ACTIONS 63),
    (anon_sym_nonlocal, ACTIONS 65), (anon_sym_exec, ACTIONS 67), (anon_sym_type, ACTIONS 69),
    (anon_sym_mut, ACTIONS 73), (anon_sym_out, ACTIONS 73), (anon_sym_DASH, ACTIONS 79),
    (anon_sym_PLUS, ACTIONS 79), (anon_sym_ref, ACTIONS 81), (anon_sym_var, ACTIONS 81),
    (anon_sym_not, ACTIONS 83), (anon_sym_TILDE, ACTIONS 79), (anon_sym_lambda, ACTIONS 85),
    (anon_sym_yield, ACTIONS 87), (sym_ellipsis, ACTIONS 89), (anon_sym___mlir_type, ACTIONS 91),
    (sym_integer, ACTIONS 93), (sym_float, ACTIONS 89), (anon_sym_await, ACTIONS 95),
    (sym_true, ACTIONS 93), (sym_false, ACTIONS 93), (sym_none, ACTIONS 93),
    (sym_comment, ACTIONS 3), (sym_line_continuation, ACTIONS 3), (sym__newline, ACTIONS 1826),
    (sym__indent, ACTIONS 1828), (sym_string_start, ACTIONS 97)]"

end
