(* ===== verification/Mojo_Parse_Table.thy ===== *)
theory Mojo_Parse_Table
  imports C_Arrays Mojo_Parse_Rows_0 Mojo_Parse_Rows_1 Mojo_Parse_Rows_2 Mojo_Parse_Rows_3 Mojo_Parse_Rows_4 Mojo_Parse_Rows_5 Mojo_Parse_Rows_6 Mojo_Parse_Rows_7 Mojo_Parse_Rows_8
begin

text \<open>
  The first 1279 rows of \<open>ts_parse_table\<close> as a table.
\<close>

section \<open>The table\<close>

definition parse_rows_0 :: "(nat \<times> nat) list list" where "parse_rows_0 = [
    parse_table_0, parse_table_1, parse_table_2, parse_table_3, parse_table_4, parse_table_5,
    parse_table_6, parse_table_7, parse_table_8, parse_table_9, parse_table_10, parse_table_11,
    parse_table_12, parse_table_13, parse_table_14, parse_table_15, parse_table_16,
    parse_table_17, parse_table_18, parse_table_19, parse_table_20, parse_table_21,
    parse_table_22, parse_table_23, parse_table_24, parse_table_25, parse_table_26,
    parse_table_27, parse_table_28, parse_table_29, parse_table_30, parse_table_31,
    parse_table_32, parse_table_33, parse_table_34, parse_table_35, parse_table_36,
    parse_table_37, parse_table_38, parse_table_39, parse_table_40, parse_table_41,
    parse_table_42, parse_table_43, parse_table_44, parse_table_45, parse_table_46,
    parse_table_47, parse_table_48, parse_table_49, parse_table_50, parse_table_51,
    parse_table_52, parse_table_53, parse_table_54, parse_table_55, parse_table_56,
    parse_table_57, parse_table_58, parse_table_59, parse_table_60, parse_table_61,
    parse_table_62, parse_table_63, parse_table_64, parse_table_65, parse_table_66,
    parse_table_67, parse_table_68, parse_table_69, parse_table_70, parse_table_71,
    parse_table_72, parse_table_73, parse_table_74, parse_table_75, parse_table_76,
    parse_table_77, parse_table_78, parse_table_79, parse_table_80, parse_table_81,
    parse_table_82, parse_table_83, parse_table_84, parse_table_85, parse_table_86,
    parse_table_87, parse_table_88, parse_table_89, parse_table_90, parse_table_91,
    parse_table_92, parse_table_93, parse_table_94, parse_table_95, parse_table_96,
    parse_table_97, parse_table_98, parse_table_99, parse_table_100, parse_table_101,
    parse_table_102, parse_table_103, parse_table_104, parse_table_105, parse_table_106,
    parse_table_107, parse_table_108, parse_table_109, parse_table_110, parse_table_111,
    parse_table_112, parse_table_113, parse_table_114, parse_table_115, parse_table_116,
    parse_table_117, parse_table_118, parse_table_119, parse_table_120, parse_table_121,
    parse_table_122, parse_table_123, parse_table_124, parse_table_125, parse_table_126,
    parse_table_127, parse_table_128, parse_table_129, parse_table_130, parse_table_131,
    parse_table_132, parse_table_133, parse_table_134, parse_table_135, parse_table_136,
    parse_table_137, parse_table_138, parse_table_139, parse_table_140, parse_table_141,
    parse_table_142, parse_table_143, parse_table_144, parse_table_145, parse_table_146,
    parse_table_147, parse_table_148, parse_table_149]"

definition parse_rows_1 :: "(nat \<times> nat) list list" where "parse_rows_1 = [
    parse_table_150, parse_table_151, parse_table_152, parse_table_153, parse_table_154,
    parse_table_155, parse_table_156, parse_table_157, parse_table_158, parse_table_159,
    parse_table_160, parse_table_161, parse_table_162, parse_table_163, parse_table_164,
    parse_table_165, parse_table_166, parse_table_167, parse_table_168, parse_table_169,
    parse_table_170, parse_table_171, parse_table_172, parse_table_173, parse_table_174,
    parse_table_175, parse_table_176, parse_table_177, parse_table_178, parse_table_179,
    parse_table_180, parse_table_181, parse_table_182, parse_table_183, parse_table_184,
    parse_table_185, parse_table_186, parse_table_187, parse_table_188, parse_table_189,
    parse_table_190, parse_table_191, parse_table_192, parse_table_193, parse_table_194,
    parse_table_195, parse_table_196, parse_table_197, parse_table_198, parse_table_199,
    parse_table_200, parse_table_201, parse_table_202, parse_table_203, parse_table_204,
    parse_table_205, parse_table_206, parse_table_207, parse_table_208, parse_table_209,
    parse_table_210, parse_table_211, parse_table_212, parse_table_213, parse_table_214,
    parse_table_215, parse_table_216, parse_table_217, parse_table_218, parse_table_219,
    parse_table_220, parse_table_221, parse_table_222, parse_table_223, parse_table_224,
    parse_table_225, parse_table_226, parse_table_227, parse_table_228, parse_table_229,
    parse_table_230, parse_table_231, parse_table_232, parse_table_233, parse_table_234,
    parse_table_235, parse_table_236, parse_table_237, parse_table_238, parse_table_239,
    parse_table_240, parse_table_241, parse_table_242, parse_table_243, parse_table_244,
    parse_table_245, parse_table_246, parse_table_247, parse_table_248, parse_table_249,
    parse_table_250, parse_table_251, parse_table_252, parse_table_253, parse_table_254,
    parse_table_255, parse_table_256, parse_table_257, parse_table_258, parse_table_259,
    parse_table_260, parse_table_261, parse_table_262, parse_table_263, parse_table_264,
    parse_table_265, parse_table_266, parse_table_267, parse_table_268, parse_table_269,
    parse_table_270, parse_table_271, parse_table_272, parse_table_273, parse_table_274,
    parse_table_275, parse_table_276, parse_table_277, parse_table_278, parse_table_279,
    parse_table_280, parse_table_281, parse_table_282, parse_table_283, parse_table_284,
    parse_table_285, parse_table_286, parse_table_287, parse_table_288, parse_table_289,
    parse_table_290, parse_table_291, parse_table_292, parse_table_293, parse_table_294,
    parse_table_295, parse_table_296, parse_table_297, parse_table_298, parse_table_299]"

definition parse_rows_2 :: "(nat \<times> nat) list list" where "parse_rows_2 = [
    parse_table_300, parse_table_301, parse_table_302, parse_table_303, parse_table_304,
    parse_table_305, parse_table_306, parse_table_307, parse_table_308, parse_table_309,
    parse_table_310, parse_table_311, parse_table_312, parse_table_313, parse_table_314,
    parse_table_315, parse_table_316, parse_table_317, parse_table_318, parse_table_319,
    parse_table_320, parse_table_321, parse_table_322, parse_table_323, parse_table_324,
    parse_table_325, parse_table_326, parse_table_327, parse_table_328, parse_table_329,
    parse_table_330, parse_table_331, parse_table_332, parse_table_333, parse_table_334,
    parse_table_335, parse_table_336, parse_table_337, parse_table_338, parse_table_339,
    parse_table_340, parse_table_341, parse_table_342, parse_table_343, parse_table_344,
    parse_table_345, parse_table_346, parse_table_347, parse_table_348, parse_table_349,
    parse_table_350, parse_table_351, parse_table_352, parse_table_353, parse_table_354,
    parse_table_355, parse_table_356, parse_table_357, parse_table_358, parse_table_359,
    parse_table_360, parse_table_361, parse_table_362, parse_table_363, parse_table_364,
    parse_table_365, parse_table_366, parse_table_367, parse_table_368, parse_table_369,
    parse_table_370, parse_table_371, parse_table_372, parse_table_373, parse_table_374,
    parse_table_375, parse_table_376, parse_table_377, parse_table_378, parse_table_379,
    parse_table_380, parse_table_381, parse_table_382, parse_table_383, parse_table_384,
    parse_table_385, parse_table_386, parse_table_387, parse_table_388, parse_table_389,
    parse_table_390, parse_table_391, parse_table_392, parse_table_393, parse_table_394,
    parse_table_395, parse_table_396, parse_table_397, parse_table_398, parse_table_399,
    parse_table_400, parse_table_401, parse_table_402, parse_table_403, parse_table_404,
    parse_table_405, parse_table_406, parse_table_407, parse_table_408, parse_table_409,
    parse_table_410, parse_table_411, parse_table_412, parse_table_413, parse_table_414,
    parse_table_415, parse_table_416, parse_table_417, parse_table_418, parse_table_419,
    parse_table_420, parse_table_421, parse_table_422, parse_table_423, parse_table_424,
    parse_table_425, parse_table_426, parse_table_427, parse_table_428, parse_table_429,
    parse_table_430, parse_table_431, parse_table_432, parse_table_433, parse_table_434,
    parse_table_435, parse_table_436, parse_table_437, parse_table_438, parse_table_439,
    parse_table_440, parse_table_441, parse_table_442, parse_table_443, parse_table_444,
    parse_table_445, parse_table_446, parse_table_447, parse_table_448, parse_table_449]"

definition parse_rows_3 :: "(nat \<times> nat) list list" where "parse_rows_3 = [
    parse_table_450, parse_table_451, parse_table_452, parse_table_453, parse_table_454,
    parse_table_455, parse_table_456, parse_table_457, parse_table_458, parse_table_459,
    parse_table_460, parse_table_461, parse_table_462, parse_table_463, parse_table_464,
    parse_table_465, parse_table_466, parse_table_467, parse_table_468, parse_table_469,
    parse_table_470, parse_table_471, parse_table_472, parse_table_473, parse_table_474,
    parse_table_475, parse_table_476, parse_table_477, parse_table_478, parse_table_479,
    parse_table_480, parse_table_481, parse_table_482, parse_table_483, parse_table_484,
    parse_table_485, parse_table_486, parse_table_487, parse_table_488, parse_table_489,
    parse_table_490, parse_table_491, parse_table_492, parse_table_493, parse_table_494,
    parse_table_495, parse_table_496, parse_table_497, parse_table_498, parse_table_499,
    parse_table_500, parse_table_501, parse_table_502, parse_table_503, parse_table_504,
    parse_table_505, parse_table_506, parse_table_507, parse_table_508, parse_table_509,
    parse_table_510, parse_table_511, parse_table_512, parse_table_513, parse_table_514,
    parse_table_515, parse_table_516, parse_table_517, parse_table_518, parse_table_519,
    parse_table_520, parse_table_521, parse_table_522, parse_table_523, parse_table_524,
    parse_table_525, parse_table_526, parse_table_527, parse_table_528, parse_table_529,
    parse_table_530, parse_table_531, parse_table_532, parse_table_533, parse_table_534,
    parse_table_535, parse_table_536, parse_table_537, parse_table_538, parse_table_539,
    parse_table_540, parse_table_541, parse_table_542, parse_table_543, parse_table_544,
    parse_table_545, parse_table_546, parse_table_547, parse_table_548, parse_table_549,
    parse_table_550, parse_table_551, parse_table_552, parse_table_553, parse_table_554,
    parse_table_555, parse_table_556, parse_table_557, parse_table_558, parse_table_559,
    parse_table_560, parse_table_561, parse_table_562, parse_table_563, parse_table_564,
    parse_table_565, parse_table_566, parse_table_567, parse_table_568, parse_table_569,
    parse_table_570, parse_table_571, parse_table_572, parse_table_573, parse_table_574,
    parse_table_575, parse_table_576, parse_table_577, parse_table_578, parse_table_579,
    parse_table_580, parse_table_581, parse_table_582, parse_table_583, parse_table_584,
    parse_table_585, parse_table_586, parse_table_587, parse_table_588, parse_table_589,
    parse_table_590, parse_table_591, parse_table_592, parse_table_593, parse_table_594,
    parse_table_595, parse_table_596, parse_table_597, parse_table_598, parse_table_599]"

definition parse_rows_4 :: "(nat \<times> nat) list list" where "parse_rows_4 = [
    parse_table_600, parse_table_601, parse_table_602, parse_table_603, parse_table_604,
    parse_table_605, parse_table_606, parse_table_607, parse_table_608, parse_table_609,
    parse_table_610, parse_table_611, parse_table_612, parse_table_613, parse_table_614,
    parse_table_615, parse_table_616, parse_table_617, parse_table_618, parse_table_619,
    parse_table_620, parse_table_621, parse_table_622, parse_table_623, parse_table_624,
    parse_table_625, parse_table_626, parse_table_627, parse_table_628, parse_table_629,
    parse_table_630, parse_table_631, parse_table_632, parse_table_633, parse_table_634,
    parse_table_635, parse_table_636, parse_table_637, parse_table_638, parse_table_639,
    parse_table_640, parse_table_641, parse_table_642, parse_table_643, parse_table_644,
    parse_table_645, parse_table_646, parse_table_647, parse_table_648, parse_table_649,
    parse_table_650, parse_table_651, parse_table_652, parse_table_653, parse_table_654,
    parse_table_655, parse_table_656, parse_table_657, parse_table_658, parse_table_659,
    parse_table_660, parse_table_661, parse_table_662, parse_table_663, parse_table_664,
    parse_table_665, parse_table_666, parse_table_667, parse_table_668, parse_table_669,
    parse_table_670, parse_table_671, parse_table_672, parse_table_673, parse_table_674,
    parse_table_675, parse_table_676, parse_table_677, parse_table_678, parse_table_679,
    parse_table_680, parse_table_681, parse_table_682, parse_table_683, parse_table_684,
    parse_table_685, parse_table_686, parse_table_687, parse_table_688, parse_table_689,
    parse_table_690, parse_table_691, parse_table_692, parse_table_693, parse_table_694,
    parse_table_695, parse_table_696, parse_table_697, parse_table_698, parse_table_699,
    parse_table_700, parse_table_701, parse_table_702, parse_table_703, parse_table_704,
    parse_table_705, parse_table_706, parse_table_707, parse_table_708, parse_table_709,
    parse_table_710, parse_table_711, parse_table_712, parse_table_713, parse_table_714,
    parse_table_715, parse_table_716, parse_table_717, parse_table_718, parse_table_719,
    parse_table_720, parse_table_721, parse_table_722, parse_table_723, parse_table_724,
    parse_table_725, parse_table_726, parse_table_727, parse_table_728, parse_table_729,
    parse_table_730, parse_table_731, parse_table_732, parse_table_733, parse_table_734,
    parse_table_735, parse_table_736, parse_table_737, parse_table_738, parse_table_739,
    parse_table_740, parse_table_741, parse_table_742, parse_table_743, parse_table_744,
    parse_table_745, parse_table_746, parse_table_747, parse_table_748, parse_table_749]"

definition parse_rows_5 :: "(nat \<times> nat) list list" where "parse_rows_5 = [
    parse_table_750, parse_table_751, parse_table_752, parse_table_753, parse_table_754,
    parse_table_755, parse_table_756, parse_table_757, parse_table_758, parse_table_759,
    parse_table_760, parse_table_761, parse_table_762, parse_table_763, parse_table_764,
    parse_table_765, parse_table_766, parse_table_767, parse_table_768, parse_table_769,
    parse_table_770, parse_table_771, parse_table_772, parse_table_773, parse_table_774,
    parse_table_775, parse_table_776, parse_table_777, parse_table_778, parse_table_779,
    parse_table_780, parse_table_781, parse_table_782, parse_table_783, parse_table_784,
    parse_table_785, parse_table_786, parse_table_787, parse_table_788, parse_table_789,
    parse_table_790, parse_table_791, parse_table_792, parse_table_793, parse_table_794,
    parse_table_795, parse_table_796, parse_table_797, parse_table_798, parse_table_799,
    parse_table_800, parse_table_801, parse_table_802, parse_table_803, parse_table_804,
    parse_table_805, parse_table_806, parse_table_807, parse_table_808, parse_table_809,
    parse_table_810, parse_table_811, parse_table_812, parse_table_813, parse_table_814,
    parse_table_815, parse_table_816, parse_table_817, parse_table_818, parse_table_819,
    parse_table_820, parse_table_821, parse_table_822, parse_table_823, parse_table_824,
    parse_table_825, parse_table_826, parse_table_827, parse_table_828, parse_table_829,
    parse_table_830, parse_table_831, parse_table_832, parse_table_833, parse_table_834,
    parse_table_835, parse_table_836, parse_table_837, parse_table_838, parse_table_839,
    parse_table_840, parse_table_841, parse_table_842, parse_table_843, parse_table_844,
    parse_table_845, parse_table_846, parse_table_847, parse_table_848, parse_table_849,
    parse_table_850, parse_table_851, parse_table_852, parse_table_853, parse_table_854,
    parse_table_855, parse_table_856, parse_table_857, parse_table_858, parse_table_859,
    parse_table_860, parse_table_861, parse_table_862, parse_table_863, parse_table_864,
    parse_table_865, parse_table_866, parse_table_867, parse_table_868, parse_table_869,
    parse_table_870, parse_table_871, parse_table_872, parse_table_873, parse_table_874,
    parse_table_875, parse_table_876, parse_table_877, parse_table_878, parse_table_879,
    parse_table_880, parse_table_881, parse_table_882, parse_table_883, parse_table_884,
    parse_table_885, parse_table_886, parse_table_887, parse_table_888, parse_table_889,
    parse_table_890, parse_table_891, parse_table_892, parse_table_893, parse_table_894,
    parse_table_895, parse_table_896, parse_table_897, parse_table_898, parse_table_899]"

definition parse_rows_6 :: "(nat \<times> nat) list list" where "parse_rows_6 = [
    parse_table_900, parse_table_901, parse_table_902, parse_table_903, parse_table_904,
    parse_table_905, parse_table_906, parse_table_907, parse_table_908, parse_table_909,
    parse_table_910, parse_table_911, parse_table_912, parse_table_913, parse_table_914,
    parse_table_915, parse_table_916, parse_table_917, parse_table_918, parse_table_919,
    parse_table_920, parse_table_921, parse_table_922, parse_table_923, parse_table_924,
    parse_table_925, parse_table_926, parse_table_927, parse_table_928, parse_table_929,
    parse_table_930, parse_table_931, parse_table_932, parse_table_933, parse_table_934,
    parse_table_935, parse_table_936, parse_table_937, parse_table_938, parse_table_939,
    parse_table_940, parse_table_941, parse_table_942, parse_table_943, parse_table_944,
    parse_table_945, parse_table_946, parse_table_947, parse_table_948, parse_table_949,
    parse_table_950, parse_table_951, parse_table_952, parse_table_953, parse_table_954,
    parse_table_955, parse_table_956, parse_table_957, parse_table_958, parse_table_959,
    parse_table_960, parse_table_961, parse_table_962, parse_table_963, parse_table_964,
    parse_table_965, parse_table_966, parse_table_967, parse_table_968, parse_table_969,
    parse_table_970, parse_table_971, parse_table_972, parse_table_973, parse_table_974,
    parse_table_975, parse_table_976, parse_table_977, parse_table_978, parse_table_979,
    parse_table_980, parse_table_981, parse_table_982, parse_table_983, parse_table_984,
    parse_table_985, parse_table_986, parse_table_987, parse_table_988, parse_table_989,
    parse_table_990, parse_table_991, parse_table_992, parse_table_993, parse_table_994,
    parse_table_995, parse_table_996, parse_table_997, parse_table_998, parse_table_999,
    parse_table_1000, parse_table_1001, parse_table_1002, parse_table_1003, parse_table_1004,
    parse_table_1005, parse_table_1006, parse_table_1007, parse_table_1008, parse_table_1009,
    parse_table_1010, parse_table_1011, parse_table_1012, parse_table_1013, parse_table_1014,
    parse_table_1015, parse_table_1016, parse_table_1017, parse_table_1018, parse_table_1019,
    parse_table_1020, parse_table_1021, parse_table_1022, parse_table_1023, parse_table_1024,
    parse_table_1025, parse_table_1026, parse_table_1027, parse_table_1028, parse_table_1029,
    parse_table_1030, parse_table_1031, parse_table_1032, parse_table_1033, parse_table_1034,
    parse_table_1035, parse_table_1036, parse_table_1037, parse_table_1038, parse_table_1039,
    parse_table_1040, parse_table_1041, parse_table_1042, parse_table_1043, parse_table_1044,
    parse_table_1045, parse_table_1046, parse_table_1047, parse_table_1048, parse_table_1049]"

definition parse_rows_7 :: "(nat \<times> nat) list list" where "parse_rows_7 = [
    parse_table_1050, parse_table_1051, parse_table_1052, parse_table_1053, parse_table_1054,
    parse_table_1055, parse_table_1056, parse_table_1057, parse_table_1058, parse_table_1059,
    parse_table_1060, parse_table_1061, parse_table_1062, parse_table_1063, parse_table_1064,
    parse_table_1065, parse_table_1066, parse_table_1067, parse_table_1068, parse_table_1069,
    parse_table_1070, parse_table_1071, parse_table_1072, parse_table_1073, parse_table_1074,
    parse_table_1075, parse_table_1076, parse_table_1077, parse_table_1078, parse_table_1079,
    parse_table_1080, parse_table_1081, parse_table_1082, parse_table_1083, parse_table_1084,
    parse_table_1085, parse_table_1086, parse_table_1087, parse_table_1088, parse_table_1089,
    parse_table_1090, parse_table_1091, parse_table_1092, parse_table_1093, parse_table_1094,
    parse_table_1095, parse_table_1096, parse_table_1097, parse_table_1098, parse_table_1099,
    parse_table_1100, parse_table_1101, parse_table_1102, parse_table_1103, parse_table_1104,
    parse_table_1105, parse_table_1106, parse_table_1107, parse_table_1108, parse_table_1109,
    parse_table_1110, parse_table_1111, parse_table_1112, parse_table_1113, parse_table_1114,
    parse_table_1115, parse_table_1116, parse_table_1117, parse_table_1118, parse_table_1119,
    parse_table_1120, parse_table_1121, parse_table_1122, parse_table_1123, parse_table_1124,
    parse_table_1125, parse_table_1126, parse_table_1127, parse_table_1128, parse_table_1129,
    parse_table_1130, parse_table_1131, parse_table_1132, parse_table_1133, parse_table_1134,
    parse_table_1135, parse_table_1136, parse_table_1137, parse_table_1138, parse_table_1139,
    parse_table_1140, parse_table_1141, parse_table_1142, parse_table_1143, parse_table_1144,
    parse_table_1145, parse_table_1146, parse_table_1147, parse_table_1148, parse_table_1149,
    parse_table_1150, parse_table_1151, parse_table_1152, parse_table_1153, parse_table_1154,
    parse_table_1155, parse_table_1156, parse_table_1157, parse_table_1158, parse_table_1159,
    parse_table_1160, parse_table_1161, parse_table_1162, parse_table_1163, parse_table_1164,
    parse_table_1165, parse_table_1166, parse_table_1167, parse_table_1168, parse_table_1169,
    parse_table_1170, parse_table_1171, parse_table_1172, parse_table_1173, parse_table_1174,
    parse_table_1175, parse_table_1176, parse_table_1177, parse_table_1178, parse_table_1179,
    parse_table_1180, parse_table_1181, parse_table_1182, parse_table_1183, parse_table_1184,
    parse_table_1185, parse_table_1186, parse_table_1187, parse_table_1188, parse_table_1189,
    parse_table_1190, parse_table_1191, parse_table_1192, parse_table_1193, parse_table_1194,
    parse_table_1195, parse_table_1196, parse_table_1197, parse_table_1198, parse_table_1199]"

definition parse_rows_8 :: "(nat \<times> nat) list list" where "parse_rows_8 = [
    parse_table_1200, parse_table_1201, parse_table_1202, parse_table_1203, parse_table_1204,
    parse_table_1205, parse_table_1206, parse_table_1207, parse_table_1208, parse_table_1209,
    parse_table_1210, parse_table_1211, parse_table_1212, parse_table_1213, parse_table_1214,
    parse_table_1215, parse_table_1216, parse_table_1217, parse_table_1218, parse_table_1219,
    parse_table_1220, parse_table_1221, parse_table_1222, parse_table_1223, parse_table_1224,
    parse_table_1225, parse_table_1226, parse_table_1227, parse_table_1228, parse_table_1229,
    parse_table_1230, parse_table_1231, parse_table_1232, parse_table_1233, parse_table_1234,
    parse_table_1235, parse_table_1236, parse_table_1237, parse_table_1238, parse_table_1239,
    parse_table_1240, parse_table_1241, parse_table_1242, parse_table_1243, parse_table_1244,
    parse_table_1245, parse_table_1246, parse_table_1247, parse_table_1248, parse_table_1249,
    parse_table_1250, parse_table_1251, parse_table_1252, parse_table_1253, parse_table_1254,
    parse_table_1255, parse_table_1256, parse_table_1257, parse_table_1258, parse_table_1259,
    parse_table_1260, parse_table_1261, parse_table_1262, parse_table_1263, parse_table_1264,
    parse_table_1265, parse_table_1266, parse_table_1267, parse_table_1268, parse_table_1269,
    parse_table_1270, parse_table_1271, parse_table_1272, parse_table_1273, parse_table_1274,
    parse_table_1275, parse_table_1276, parse_table_1277, parse_table_1278]"

text \<open>An element that is not named is 0, for no action and no state.\<close>

definition parse_table_rows :: "(nat \<times> nat) list list" where
  "parse_table_rows = parse_rows_0 @ parse_rows_1 @ parse_rows_2 @ parse_rows_3 @ parse_rows_4 @ parse_rows_5 @ parse_rows_6 @ parse_rows_7 @ parse_rows_8"

definition parse_table_entry :: "nat \<Rightarrow> nat \<Rightarrow> nat" where
  "parse_table_entry s symbol = designated 0 SYMBOL_COUNT (parse_table_rows ! s) ! symbol"

end
