(* ===== verification/Mojo_Token_Runs.thy ===== *)
theory Mojo_Token_Runs
  imports Mojo_Lex_Properties
begin

text \<open>
  Inputs that the generated lexers scan as a given token: short words are evaluated state by state, and
  a keyword is an identifier for \<open>ts_lex\<close> and its token for \<open>ts_lex_keywords\<close>.
\<close>

section \<open>Evaluation of \<open>ts_lex\<close>\<close>

text \<open>A run on the text alone: the token and its end accepted last.\<close>

fun lex_word :: "nat \<Rightarrow> nat \<Rightarrow> int list \<Rightarrow> nat \<Rightarrow> (nat \<times> nat) option \<Rightarrow> (nat \<times> nat) option" where
  "lex_word 0 s cs n acc = None"
| "lex_word (Suc k) s cs n acc =
     (let step = (ts_lex_table ! s) (cs = []) (case cs of [] \<Rightarrow> 0 | c # _ \<Rightarrow> c);
          acc = (case fst step of None \<Rightarrow> acc | Some t \<Rightarrow> Some (t, n))
      in case snd step of
           ADVANCE s \<Rightarrow> if s < 162 then lex_word k s (tl cs) (if cs = [] then n else Suc n) acc else None
         | SKIP s \<Rightarrow> None
         | END_STATE \<Rightarrow> acc)"

definition accepted :: "source_text \<Rightarrow> (nat \<times> nat) option \<Rightarrow> bool \<Rightarrow> bool" where
  "accepted t acc r \<longleftrightarrow> (case acc of None \<Rightarrow> \<not> r | Some (a, e) \<Rightarrow> r \<and> t_symbol t = a \<and> t_end t = Some e)"

lemma lex_word_run:
  assumes "lex_word k s cs n acc = Some (a, e)" "s < 162" "t_input l = cs" "t_pos l = n" "accepted l acc r"
  shows "\<exists>l'. lex_run text_ops ts_lex_switch r s l = Some (True, l') \<and> t_symbol l' = a \<and> t_end l' = Some e"
  using assms
proof (induction k arbitrary: s cs n acc l r)
  case (Suc k)
  let ?step = "(ts_lex_table ! s) (cs = []) (case cs of [] \<Rightarrow> 0 | c # _ \<Rightarrow> c)"
  obtain b act where st: "?step = (b, act)" by fastforce
  let ?acc = "case b of None \<Rightarrow> acc | Some t \<Rightarrow> Some (t, n)"
  let ?rl = "ACCEPT_TOKEN text_ops b (r, l)"
  have sw: "ts_lex_switch s = Some (ts_lex_table ! s)"
    using Suc.prems(2) by (simp add: ts_lex_switch_def length_ts_lex_table)
  have body: "(ts_lex_table ! s) (lx_eof text_ops l) (lx_lookahead text_ops l) = (b, act)"
    using st Suc.prems(3) by (auto simp: text_ops_def text_eof_def text_lookahead_def split: list.splits)
  have acc: "accepted (snd ?rl) ?acc (fst ?rl)" "t_input (snd ?rl) = cs" "t_pos (snd ?rl) = n"
    using Suc.prems(3-5) by (auto simp: accepted_def ACCEPT_TOKEN_def text_ops_def text_mark_end_def
        text_set_result_def split: option.splits)
  show ?case
  proof (cases act)
    case (ADVANCE s')
    let ?l = "lx_advance text_ops (snd ?rl) False"
    have adv: "t_input ?l = tl cs" "t_pos ?l = (if cs = [] then n else Suc n)" "accepted ?l ?acc (fst ?rl)"
      using acc by (auto simp: text_ops_def text_advance_def accepted_def split: list.splits option.splits)
    have "lex_word k s' (tl cs) (if cs = [] then n else Suc n) ?acc = Some (a, e)" "s' < 162"
      using Suc.prems(1) st ADVANCE by (auto simp: Let_def split: if_splits)
    from Suc.IH [OF this adv] show ?thesis
      using sw body ADVANCE by (subst lex_run.simps) (simp add: Let_def)
  next
    case (SKIP s')
    with Suc.prems(1) st show ?thesis by (simp add: Let_def)
  next
    case END_STATE
    obtain r' l' where rl: "?rl = (r', l')" by fastforce
    have "?acc = Some (a, e)" using Suc.prems(1) st END_STATE by (simp add: Let_def)
    with acc(1) rl have "r'" "t_symbol l' = a" "t_end l' = Some e" by (simp_all add: accepted_def)
    with rl END_STATE show ?thesis
      using sw body by (subst lex_run.simps) (simp add: Let_def)
  qed
qed simp

section \<open>Words of a token\<close>

text \<open>In the lexical state \<open>q\<close> the whole of \<open>w\<close> is one token \<open>a\<close>.\<close>

definition scans_as :: "nat \<Rightarrow> int list \<Rightarrow> nat \<Rightarrow> bool" where
  "scans_as q w a \<longleftrightarrow> (\<exists>l'. ts_lex text_ops (text_of w) q = Some (True, l') \<and> t_symbol l' = a \<and>
     t_end l' = Some (length w))"

lemma scans_asI: "lex_word k q w 0 None = Some (a, length w) \<Longrightarrow> q < 162 \<Longrightarrow> scans_as q w a"
  unfolding scans_as_def ts_lex_def lex_start_def
  using lex_word_run [of k q w 0 None a "length w" "text_of w" False]
  by (simp add: text_of_def accepted_def)

text \<open>The keyword lexer reports \<open>a\<close> for the whole of \<open>w\<close>.\<close>

definition keyword_as :: "int list \<Rightarrow> nat \<Rightarrow> bool" where
  "keyword_as w a \<longleftrightarrow> (\<exists>l'. ts_lex_keywords text_ops (text_of w) 0 = Some (True, l') \<and> t_symbol l' = a \<and>
     t_end l' = Some (length w))"

section \<open>Keywords\<close>

lemma word_characters:
  "65 \<le> c \<and> c \<le> 90 \<or> c = 95 \<or> 97 \<le> c \<and> c \<le> 122 \<Longrightarrow> ident_first c \<and> ident_rest c"
proof -
  have "\<forall>r\<in>{\<lparr>range_start = 65, range_end = 90\<rparr>, \<lparr>range_start = 95, range_end = 95\<rparr>,
      \<lparr>range_start = 97, range_end = 122\<rparr>}.
      r \<in> set sym_identifier_character_set_1 \<and> r \<in> set sym_identifier_character_set_2"
    unfolding sym_identifier_character_set_1_def sym_identifier_character_set_2_def char_ranges_def by simp
  then show "65 \<le> c \<and> c \<le> 90 \<or> c = 95 \<or> 97 \<le> c \<and> c \<le> 122 \<Longrightarrow> ident_first c \<and> ident_rest c"
    unfolding ident_first_def ident_rest_def by (auto simp: in_range_def intro: rev_bexI)
qed

definition word_character :: "char \<Rightarrow> bool" where
  "word_character x \<longleftrightarrow> (let c = of_char x :: int in 65 \<le> c \<and> c \<le> 90 \<or> c = 95 \<or> 97 \<le> c \<and> c \<le> 122)"

lemma keywords_are_words:
  "list_all (\<lambda>(w, a). w \<noteq> [] \<and> list_all word_character w \<and> w \<noteq> ''except'') keyword_list"
  "distinct (map fst keyword_list)"
  unfolding keyword_list_def by (simp_all add: word_character_def Let_def)

lemma keyword_scans:
  assumes "(w, a) \<in> set keyword_list" and "q \<in> set word_start_states"
  shows "scans_as q (map of_char w) sym_identifier" and "keyword_as (map of_char w) a"
proof -
  have w: "w \<noteq> []" "\<forall>x\<in>set w. ident_first (of_char x) \<and> ident_rest (of_char x)" "w \<noteq> ''except''"
    using keywords_are_words(1) assms(1) word_characters
    by (fastforce simp: list_all_iff word_character_def Let_def)+
  then obtain x xs where x: "w = x # xs" by (cases w) auto
  have "map (of_char :: char \<Rightarrow> int) w \<noteq> map of_char ''except''"
    using w(3) by (metis inj_map_eq_map inj_of_char)
  then show "scans_as q (map of_char w) sym_identifier"
    using identifier_lex_run [OF text_lexer.ts_lexer_axioms assms(2), of "text_of (map of_char w)" "of_char x"
        "map of_char xs" "[]"] w x
    by (auto simp: scans_as_def text_of_def ends_word_def list_all_iff)
  let ?w = "map (of_char :: char \<Rightarrow> int) w"
  have mem: "(?w, a) \<in> set keyword_words_list"
    using assms(1) by (force simp: keyword_words_list_def char_words_def)
  then have some: "\<not> no_word keyword_words_list ?w" by (auto simp: no_word_def)
  have "\<not> lexer_blank (of_char x)" using w(2) x ident_first_facts [of "of_char x"] by (auto simp: lexer_blank_def)
  then obtain l' v t where k: "ts_lex_keywords text_ops (text_of ?w) 0 = Some (True, l')"
    "longest_word keyword_words_list ?w v t" "t_symbol l' = t" "t_end l' = Some (length v)"
    using keyword_lex_run [OF text_lexer.ts_lexer_axioms, of "text_of ?w" "[]" ?w] some x
    by (auto simp: text_of_def)
  from k(2) mem have "v = ?w" by (auto simp: longest_word_def prefix_length_prefix prefix_order.eq_iff
      intro: prefix_length_prefix)
  moreover from k(2) obtain w' where "(w', t) \<in> set keyword_list" "v = map of_char w'"
    by (auto simp: longest_word_def keyword_words_list_def char_words_def)
  then have "t = a" using keywords_are_words(2) assms(1) \<open>v = ?w\<close> inj_of_char [where 'a = int]
    by (metis eq_key_imp_eq_value inj_map_eq_map)
  ultimately show "keyword_as ?w a" using k by (auto simp: keyword_as_def)
qed

end
