(* ===== verification/Mojo_Token_Inputs.thy ===== *)
theory Mojo_Token_Inputs
  imports Mojo_Token_Runs
begin

text \<open>
  For the lexical states in which \<open>ts_lex\<close> starts in the modelled parse states, a word for every token that
  these states use and that is neither a keyword nor an external token.
\<close>

section \<open>The cases of \<open>ts_lex\<close>\<close>

lemma lex_table_nth:
  "ts_lex_table ! 0 = ts_lex_0"
  "ts_lex_table ! 1 = ts_lex_1"
  "ts_lex_table ! 2 = ts_lex_2"
  "ts_lex_table ! 3 = ts_lex_3"
  "ts_lex_table ! 4 = ts_lex_4"
  "ts_lex_table ! 5 = ts_lex_5"
  "ts_lex_table ! 6 = ts_lex_6"
  "ts_lex_table ! 7 = ts_lex_7"
  "ts_lex_table ! 8 = ts_lex_8"
  "ts_lex_table ! 9 = ts_lex_9"
  "ts_lex_table ! 10 = ts_lex_10"
  "ts_lex_table ! 11 = ts_lex_11"
  "ts_lex_table ! 12 = ts_lex_12"
  "ts_lex_table ! 13 = ts_lex_13"
  "ts_lex_table ! 14 = ts_lex_14"
  "ts_lex_table ! 15 = ts_lex_15"
  "ts_lex_table ! 16 = ts_lex_16"
  "ts_lex_table ! 17 = ts_lex_17"
  "ts_lex_table ! 18 = ts_lex_18"
  "ts_lex_table ! 19 = ts_lex_19"
  "ts_lex_table ! 20 = ts_lex_20"
  "ts_lex_table ! 21 = ts_lex_21"
  "ts_lex_table ! 22 = ts_lex_22"
  "ts_lex_table ! 23 = ts_lex_23"
  "ts_lex_table ! 24 = ts_lex_24"
  "ts_lex_table ! 25 = ts_lex_25"
  "ts_lex_table ! 26 = ts_lex_26"
  "ts_lex_table ! 27 = ts_lex_27"
  "ts_lex_table ! 28 = ts_lex_28"
  "ts_lex_table ! 29 = ts_lex_29"
  "ts_lex_table ! 30 = ts_lex_30"
  "ts_lex_table ! 31 = ts_lex_31"
  "ts_lex_table ! 32 = ts_lex_32"
  "ts_lex_table ! 33 = ts_lex_33"
  "ts_lex_table ! 34 = ts_lex_34"
  "ts_lex_table ! 35 = ts_lex_35"
  "ts_lex_table ! 36 = ts_lex_36"
  "ts_lex_table ! 37 = ts_lex_37"
  "ts_lex_table ! 38 = ts_lex_38"
  "ts_lex_table ! 39 = ts_lex_39"
  "ts_lex_table ! 40 = ts_lex_40"
  "ts_lex_table ! 41 = ts_lex_41"
  "ts_lex_table ! 42 = ts_lex_42"
  "ts_lex_table ! 43 = ts_lex_43"
  "ts_lex_table ! 44 = ts_lex_44"
  "ts_lex_table ! 45 = ts_lex_45"
  "ts_lex_table ! 46 = ts_lex_46"
  "ts_lex_table ! 47 = ts_lex_47"
  "ts_lex_table ! 48 = ts_lex_48"
  "ts_lex_table ! 49 = ts_lex_49"
  "ts_lex_table ! 50 = ts_lex_50"
  "ts_lex_table ! 51 = ts_lex_51"
  "ts_lex_table ! 52 = ts_lex_52"
  "ts_lex_table ! 53 = ts_lex_53"
  "ts_lex_table ! 54 = ts_lex_54"
  "ts_lex_table ! 55 = ts_lex_55"
  "ts_lex_table ! 56 = ts_lex_56"
  "ts_lex_table ! 57 = ts_lex_57"
  "ts_lex_table ! 58 = ts_lex_58"
  "ts_lex_table ! 59 = ts_lex_59"
  "ts_lex_table ! 60 = ts_lex_60"
  "ts_lex_table ! 61 = ts_lex_61"
  "ts_lex_table ! 62 = ts_lex_62"
  "ts_lex_table ! 63 = ts_lex_63"
  "ts_lex_table ! 64 = ts_lex_64"
  "ts_lex_table ! 65 = ts_lex_65"
  "ts_lex_table ! 66 = ts_lex_66"
  "ts_lex_table ! 67 = ts_lex_67"
  "ts_lex_table ! 68 = ts_lex_68"
  "ts_lex_table ! 69 = ts_lex_69"
  "ts_lex_table ! 70 = ts_lex_70"
  "ts_lex_table ! 71 = ts_lex_71"
  "ts_lex_table ! 72 = ts_lex_72"
  "ts_lex_table ! 73 = ts_lex_73"
  "ts_lex_table ! 74 = ts_lex_74"
  "ts_lex_table ! 75 = ts_lex_75"
  "ts_lex_table ! 76 = ts_lex_76"
  "ts_lex_table ! 77 = ts_lex_77"
  "ts_lex_table ! 78 = ts_lex_78"
  "ts_lex_table ! 79 = ts_lex_79"
  "ts_lex_table ! 80 = ts_lex_80"
  "ts_lex_table ! 81 = ts_lex_81"
  "ts_lex_table ! 82 = ts_lex_82"
  "ts_lex_table ! 83 = ts_lex_83"
  "ts_lex_table ! 84 = ts_lex_84"
  "ts_lex_table ! 85 = ts_lex_85"
  "ts_lex_table ! 86 = ts_lex_86"
  "ts_lex_table ! 87 = ts_lex_87"
  "ts_lex_table ! 88 = ts_lex_88"
  "ts_lex_table ! 89 = ts_lex_89"
  "ts_lex_table ! 90 = ts_lex_90"
  "ts_lex_table ! 91 = ts_lex_91"
  "ts_lex_table ! 92 = ts_lex_92"
  "ts_lex_table ! 93 = ts_lex_93"
  "ts_lex_table ! 94 = ts_lex_94"
  "ts_lex_table ! 95 = ts_lex_95"
  "ts_lex_table ! 96 = ts_lex_96"
  "ts_lex_table ! 97 = ts_lex_97"
  "ts_lex_table ! 98 = ts_lex_98"
  "ts_lex_table ! 99 = ts_lex_99"
  "ts_lex_table ! 100 = ts_lex_100"
  "ts_lex_table ! 101 = ts_lex_101"
  "ts_lex_table ! 102 = ts_lex_102"
  "ts_lex_table ! 103 = ts_lex_103"
  "ts_lex_table ! 104 = ts_lex_104"
  "ts_lex_table ! 105 = ts_lex_105"
  "ts_lex_table ! 106 = ts_lex_106"
  "ts_lex_table ! 107 = ts_lex_107"
  "ts_lex_table ! 108 = ts_lex_108"
  "ts_lex_table ! 109 = ts_lex_109"
  "ts_lex_table ! 110 = ts_lex_110"
  "ts_lex_table ! 111 = ts_lex_111"
  "ts_lex_table ! 112 = ts_lex_112"
  "ts_lex_table ! 113 = ts_lex_113"
  "ts_lex_table ! 114 = ts_lex_114"
  "ts_lex_table ! 115 = ts_lex_115"
  "ts_lex_table ! 116 = ts_lex_116"
  "ts_lex_table ! 117 = ts_lex_117"
  "ts_lex_table ! 118 = ts_lex_118"
  "ts_lex_table ! 119 = ts_lex_119"
  "ts_lex_table ! 120 = ts_lex_120"
  "ts_lex_table ! 121 = ts_lex_121"
  "ts_lex_table ! 122 = ts_lex_122"
  "ts_lex_table ! 123 = ts_lex_123"
  "ts_lex_table ! 124 = ts_lex_124"
  "ts_lex_table ! 125 = ts_lex_125"
  "ts_lex_table ! 126 = ts_lex_126"
  "ts_lex_table ! 127 = ts_lex_127"
  "ts_lex_table ! 128 = ts_lex_128"
  "ts_lex_table ! 129 = ts_lex_129"
  "ts_lex_table ! 130 = ts_lex_130"
  "ts_lex_table ! 131 = ts_lex_131"
  "ts_lex_table ! 132 = ts_lex_132"
  "ts_lex_table ! 133 = ts_lex_133"
  "ts_lex_table ! 134 = ts_lex_134"
  "ts_lex_table ! 135 = ts_lex_135"
  "ts_lex_table ! 136 = ts_lex_136"
  "ts_lex_table ! 137 = ts_lex_137"
  "ts_lex_table ! 138 = ts_lex_138"
  "ts_lex_table ! 139 = ts_lex_139"
  "ts_lex_table ! 140 = ts_lex_140"
  "ts_lex_table ! 141 = ts_lex_141"
  "ts_lex_table ! 142 = ts_lex_142"
  "ts_lex_table ! 143 = ts_lex_143"
  "ts_lex_table ! 144 = ts_lex_144"
  "ts_lex_table ! 145 = ts_lex_145"
  "ts_lex_table ! 146 = ts_lex_146"
  "ts_lex_table ! 147 = ts_lex_147"
  "ts_lex_table ! 148 = ts_lex_148"
  "ts_lex_table ! 149 = ts_lex_149"
  "ts_lex_table ! 150 = ts_lex_150"
  "ts_lex_table ! 151 = ts_lex_151"
  "ts_lex_table ! 152 = ts_lex_152"
  "ts_lex_table ! 153 = ts_lex_153"
  "ts_lex_table ! 154 = ts_lex_154"
  "ts_lex_table ! 155 = ts_lex_155"
  "ts_lex_table ! 156 = ts_lex_156"
  "ts_lex_table ! 157 = ts_lex_157"
  "ts_lex_table ! 158 = ts_lex_158"
  "ts_lex_table ! 159 = ts_lex_159"
  "ts_lex_table ! 160 = ts_lex_160"
  "ts_lex_table ! 161 = ts_lex_161"
  unfolding ts_lex_table_def by simp_all

lemmas lex_word_check = Let_def lex_table_nth ts_lex_state_defs ADVANCE_MAP_def

section \<open>A word for every token\<close>

lemma identifier_scans: "q \<in> set word_start_states \<Longrightarrow> scans_as q [120] sym_identifier"
  using identifier_lex_run [OF text_lexer.ts_lexer_axioms, of q "text_of [120]" 120 "[]" "[]"] word_characters [of 120]
  by (auto simp: scans_as_def text_of_def ends_word_def)

lemma scans_in_4:
  "scans_as 4 [45] anon_sym_DASH"
  "scans_as 4 [123] anon_sym_LBRACE"
  "scans_as 4 [91] anon_sym_LBRACK"
  "scans_as 4 [40] anon_sym_LPAREN"
  "scans_as 4 [43] anon_sym_PLUS"
  "scans_as 4 [42] anon_sym_STAR"
  "scans_as 4 [42, 42] anon_sym_STAR_STAR"
  "scans_as 4 [126] anon_sym_TILDE"
  "scans_as 4 [46, 46, 46] sym_ellipsis"
  "scans_as 4 [49, 46, 53] sym_float"
  "scans_as 4 [49] sym_integer"
  "scans_as 4 [92, 10] sym_line_continuation"
  by (rule scans_asI [where k = "Suc (Suc (Suc (Suc (Suc 0))))"]; simp add: lex_word_check)+

lemma scans_in_5:
  "scans_as 5 [38] anon_sym_AMP"
  "scans_as 5 [38, 61] anon_sym_AMP_EQ"
  "scans_as 5 [64] anon_sym_AT"
  "scans_as 5 [64, 61] anon_sym_AT_EQ"
  "scans_as 5 [33, 61] anon_sym_BANG_EQ"
  "scans_as 5 [94] anon_sym_CARET"
  "scans_as 5 [94, 61] anon_sym_CARET_EQ"
  "scans_as 5 [58] anon_sym_COLON"
  "scans_as 5 [58, 61] anon_sym_COLON_EQ"
  "scans_as 5 [44] anon_sym_COMMA"
  "scans_as 5 [45] anon_sym_DASH"
  "scans_as 5 [45, 61] anon_sym_DASH_EQ"
  "scans_as 5 [46] anon_sym_DOT"
  "scans_as 5 [61] anon_sym_EQ"
  "scans_as 5 [61, 61] anon_sym_EQ_EQ"
  "scans_as 5 [62] anon_sym_GT"
  "scans_as 5 [62, 61] anon_sym_GT_EQ"
  "scans_as 5 [62, 62] anon_sym_GT_GT"
  "scans_as 5 [62, 62, 61] anon_sym_GT_GT_EQ"
  "scans_as 5 [123] anon_sym_LBRACE"
  "scans_as 5 [91] anon_sym_LBRACK"
  "scans_as 5 [40] anon_sym_LPAREN"
  "scans_as 5 [60] anon_sym_LT"
  "scans_as 5 [60, 61] anon_sym_LT_EQ"
  "scans_as 5 [60, 62] anon_sym_LT_GT"
  "scans_as 5 [60, 60] anon_sym_LT_LT"
  "scans_as 5 [60, 60, 61] anon_sym_LT_LT_EQ"
  "scans_as 5 [37] anon_sym_PERCENT"
  "scans_as 5 [37, 61] anon_sym_PERCENT_EQ"
  "scans_as 5 [124] anon_sym_PIPE"
  "scans_as 5 [124, 61] anon_sym_PIPE_EQ"
  "scans_as 5 [43] anon_sym_PLUS"
  "scans_as 5 [43, 61] anon_sym_PLUS_EQ"
  "scans_as 5 [59] anon_sym_SEMI"
  "scans_as 5 [47] anon_sym_SLASH"
  "scans_as 5 [47, 61] anon_sym_SLASH_EQ"
  "scans_as 5 [47, 47] anon_sym_SLASH_SLASH"
  "scans_as 5 [47, 47, 61] anon_sym_SLASH_SLASH_EQ"
  "scans_as 5 [42] anon_sym_STAR"
  "scans_as 5 [42, 61] anon_sym_STAR_EQ"
  "scans_as 5 [42, 42] anon_sym_STAR_STAR"
  "scans_as 5 [42, 42, 61] anon_sym_STAR_STAR_EQ"
  "scans_as 5 [126] anon_sym_TILDE"
  "scans_as 5 [46, 46, 46] sym_ellipsis"
  "scans_as 5 [49, 46, 53] sym_float"
  "scans_as 5 [49] sym_integer"
  "scans_as 5 [92, 10] sym_line_continuation"
  by (rule scans_asI [where k = "Suc (Suc (Suc (Suc (Suc 0))))"]; simp add: lex_word_check)+

lemma scans_in_53:
  "scans_as 53 [64] anon_sym_AT"
  "scans_as 53 [45] anon_sym_DASH"
  "scans_as 53 [123] anon_sym_LBRACE"
  "scans_as 53 [91] anon_sym_LBRACK"
  "scans_as 53 [40] anon_sym_LPAREN"
  "scans_as 53 [43] anon_sym_PLUS"
  "scans_as 53 [42] anon_sym_STAR"
  "scans_as 53 [126] anon_sym_TILDE"
  "scans_as 53 [46, 46, 46] sym_ellipsis"
  "scans_as 53 [49, 46, 53] sym_float"
  "scans_as 53 [49] sym_integer"
  "scans_as 53 [92, 10] sym_line_continuation"
  "scans_as 53 [] ts_builtin_sym_end"
  by (rule scans_asI [where k = "Suc (Suc (Suc (Suc (Suc 0))))"]; simp add: lex_word_check)+

end
