(* ===== verification/Mojo_Parse_Row_Checks.thy ===== *)
theory Mojo_Parse_Row_Checks
  imports Mojo_Table_Macros Mojo_Actions Mojo_External Mojo_Symbol_Facts Mojo_Token_Inputs
begin

text \<open>
  What a row of the parse table must satisfy, with the facts by which the rows are checked: the groups of
  actions they name, and the kinds of their symbols.
\<close>

section \<open>Groups with an action\<close>

definition action_group :: "nat \<Rightarrow> bool" where
  "action_group v \<longleftrightarrow> v \<noteq> 0 \<and> (\<exists>es. (v, es) \<in> set parse_action_rows \<and> 1 < length es)"

lemma rows_groups:
  "set rs \<subseteq> set parse_action_rows \<Longrightarrow>
   list_all (\<lambda>(v, es). v \<noteq> 0 \<and> 1 < length es \<longrightarrow> action_group v) rs"
  by (fastforce simp: action_group_def list_all_iff)

lemma action_groups_0:
  "action_group 1 \<and> action_group 3 \<and> action_group 5 \<and> action_group 7 \<and>
   action_group 9 \<and> action_group 11 \<and> action_group 13 \<and> action_group 15 \<and>
   action_group 17 \<and> action_group 19 \<and> action_group 21 \<and> action_group 23 \<and>
   action_group 25 \<and> action_group 27 \<and> action_group 29 \<and> action_group 31 \<and>
   action_group 33 \<and> action_group 35 \<and> action_group 37 \<and> action_group 39 \<and>
   action_group 41 \<and> action_group 43 \<and> action_group 45 \<and> action_group 47 \<and>
   action_group 49 \<and> action_group 51 \<and> action_group 53 \<and> action_group 55 \<and>
   action_group 57 \<and> action_group 59 \<and> action_group 61 \<and> action_group 63 \<and>
   action_group 65 \<and> action_group 67 \<and> action_group 69 \<and> action_group 71 \<and>
   action_group 73 \<and> action_group 75 \<and> action_group 77 \<and> action_group 79 \<and>
   action_group 81 \<and> action_group 83 \<and> action_group 85 \<and> action_group 87 \<and>
   action_group 89 \<and> action_group 91 \<and> action_group 93 \<and> action_group 95 \<and>
   action_group 97 \<and> action_group 99 \<and> action_group 101 \<and> action_group 103 \<and>
   action_group 105 \<and> action_group 107 \<and> action_group 109 \<and>
   action_group 111 \<and> action_group 113 \<and> action_group 115 \<and>
   action_group 117 \<and> action_group 119 \<and> action_group 121 \<and>
   action_group 123 \<and> action_group 125 \<and> action_group 127 \<and>
   action_group 129 \<and> action_group 131 \<and> action_group 133 \<and>
   action_group 135 \<and> action_group 137 \<and> action_group 139 \<and>
   action_group 141 \<and> action_group 143 \<and> action_group 145 \<and>
   action_group 148 \<and> action_group 151 \<and> action_group 154 \<and>
   action_group 157 \<and> action_group 160 \<and> action_group 163 \<and>
   action_group 166 \<and> action_group 169 \<and> action_group 172 \<and>
   action_group 175 \<and> action_group 178 \<and> action_group 181 \<and>
   action_group 184 \<and> action_group 187 \<and> action_group 190 \<and>
   action_group 193 \<and> action_group 196 \<and> action_group 199 \<and>
   action_group 202 \<and> action_group 205 \<and> action_group 208 \<and>
   action_group 211 \<and> action_group 214 \<and> action_group 217 \<and>
   action_group 220 \<and> action_group 223 \<and> action_group 226 \<and>
   action_group 229 \<and> action_group 232 \<and> action_group 235 \<and>
   action_group 238 \<and> action_group 241 \<and> action_group 244 \<and>
   action_group 247 \<and> action_group 250 \<and> action_group 253 \<and>
   action_group 256 \<and> action_group 259 \<and> action_group 262 \<and>
   action_group 265 \<and> action_group 268 \<and> action_group 271 \<and>
   action_group 274 \<and> action_group 277 \<and> action_group 280 \<and>
   action_group 283 \<and> action_group 286 \<and> action_group 289 \<and>
   action_group 292 \<and> action_group 295 \<and> action_group 298 \<and>
   action_group 301 \<and> action_group 304 \<and> action_group 307 \<and>
   action_group 310 \<and> action_group 313 \<and> action_group 316 \<and>
   action_group 319 \<and> action_group 321 \<and> action_group 323 \<and>
   action_group 325 \<and> action_group 327 \<and> action_group 329 \<and>
   action_group 331 \<and> action_group 333 \<and> action_group 335 \<and>
   action_group 337 \<and> action_group 339 \<and> action_group 341 \<and>
   action_group 343 \<and> action_group 345 \<and> action_group 347 \<and>
   action_group 349 \<and> action_group 351 \<and> action_group 353 \<and> action_group 355"
proof -
  have "set parse_actions_0 \<subseteq> set parse_action_rows" by (auto simp: parse_action_rows_def)
  from rows_groups [OF this] show ?thesis unfolding parse_actions_0_def by simp
qed

lemma action_groups_1:
  "action_group 357 \<and> action_group 359 \<and> action_group 361 \<and>
   action_group 363 \<and> action_group 365 \<and> action_group 367 \<and>
   action_group 369 \<and> action_group 371 \<and> action_group 373 \<and>
   action_group 375 \<and> action_group 377 \<and> action_group 379 \<and>
   action_group 381 \<and> action_group 383 \<and> action_group 385 \<and>
   action_group 387 \<and> action_group 389 \<and> action_group 391 \<and>
   action_group 393 \<and> action_group 395 \<and> action_group 397 \<and>
   action_group 399 \<and> action_group 401 \<and> action_group 403 \<and>
   action_group 405 \<and> action_group 407 \<and> action_group 409 \<and>
   action_group 411 \<and> action_group 413 \<and> action_group 415 \<and>
   action_group 417 \<and> action_group 419 \<and> action_group 421 \<and>
   action_group 423 \<and> action_group 425 \<and> action_group 427 \<and>
   action_group 429 \<and> action_group 431 \<and> action_group 433 \<and>
   action_group 435 \<and> action_group 437 \<and> action_group 439 \<and>
   action_group 441 \<and> action_group 443 \<and> action_group 445 \<and>
   action_group 447 \<and> action_group 449 \<and> action_group 451 \<and>
   action_group 453 \<and> action_group 455 \<and> action_group 457 \<and>
   action_group 459 \<and> action_group 461 \<and> action_group 463 \<and>
   action_group 465 \<and> action_group 467 \<and> action_group 469 \<and>
   action_group 471 \<and> action_group 473 \<and> action_group 475 \<and>
   action_group 477 \<and> action_group 479 \<and> action_group 481 \<and>
   action_group 483 \<and> action_group 485 \<and> action_group 487 \<and>
   action_group 489 \<and> action_group 491 \<and> action_group 493 \<and>
   action_group 495 \<and> action_group 497 \<and> action_group 499 \<and>
   action_group 501 \<and> action_group 503 \<and> action_group 505 \<and>
   action_group 507 \<and> action_group 509 \<and> action_group 511 \<and>
   action_group 513 \<and> action_group 515 \<and> action_group 517 \<and>
   action_group 519 \<and> action_group 521 \<and> action_group 523 \<and>
   action_group 525 \<and> action_group 527 \<and> action_group 529 \<and>
   action_group 531 \<and> action_group 533 \<and> action_group 535 \<and>
   action_group 537 \<and> action_group 539 \<and> action_group 541 \<and>
   action_group 543 \<and> action_group 545 \<and> action_group 547 \<and>
   action_group 549 \<and> action_group 551 \<and> action_group 553 \<and>
   action_group 555 \<and> action_group 557 \<and> action_group 559 \<and>
   action_group 561 \<and> action_group 563 \<and> action_group 565 \<and>
   action_group 567 \<and> action_group 569 \<and> action_group 571 \<and>
   action_group 573 \<and> action_group 575 \<and> action_group 577 \<and>
   action_group 579 \<and> action_group 581 \<and> action_group 583 \<and>
   action_group 585 \<and> action_group 587 \<and> action_group 589 \<and>
   action_group 591 \<and> action_group 593 \<and> action_group 595 \<and>
   action_group 597 \<and> action_group 599 \<and> action_group 601 \<and>
   action_group 603 \<and> action_group 605 \<and> action_group 607 \<and>
   action_group 609 \<and> action_group 611 \<and> action_group 613 \<and>
   action_group 615 \<and> action_group 617 \<and> action_group 619 \<and>
   action_group 621 \<and> action_group 623 \<and> action_group 625 \<and>
   action_group 627 \<and> action_group 629 \<and> action_group 631 \<and>
   action_group 633 \<and> action_group 635 \<and> action_group 637 \<and>
   action_group 639 \<and> action_group 641 \<and> action_group 643 \<and>
   action_group 645 \<and> action_group 647 \<and> action_group 649 \<and>
   action_group 651 \<and> action_group 653 \<and> action_group 655"
proof -
  have "set parse_actions_1 \<subseteq> set parse_action_rows" by (auto simp: parse_action_rows_def)
  from rows_groups [OF this] show ?thesis unfolding parse_actions_1_def by simp
qed

lemma action_groups_2:
  "action_group 657 \<and> action_group 659 \<and> action_group 661 \<and>
   action_group 663 \<and> action_group 665 \<and> action_group 667 \<and>
   action_group 669 \<and> action_group 671 \<and> action_group 673 \<and>
   action_group 675 \<and> action_group 677 \<and> action_group 679 \<and>
   action_group 681 \<and> action_group 683 \<and> action_group 685 \<and>
   action_group 687 \<and> action_group 689 \<and> action_group 691 \<and>
   action_group 693 \<and> action_group 695 \<and> action_group 697 \<and>
   action_group 699 \<and> action_group 701 \<and> action_group 703 \<and>
   action_group 705 \<and> action_group 707 \<and> action_group 709 \<and>
   action_group 711 \<and> action_group 713 \<and> action_group 715 \<and>
   action_group 717 \<and> action_group 719 \<and> action_group 721 \<and>
   action_group 723 \<and> action_group 725 \<and> action_group 727 \<and>
   action_group 729 \<and> action_group 731 \<and> action_group 733 \<and>
   action_group 735 \<and> action_group 737 \<and> action_group 739 \<and>
   action_group 741 \<and> action_group 743 \<and> action_group 745 \<and>
   action_group 747 \<and> action_group 749 \<and> action_group 751 \<and>
   action_group 753 \<and> action_group 755 \<and> action_group 757 \<and>
   action_group 759 \<and> action_group 761 \<and> action_group 763 \<and>
   action_group 765 \<and> action_group 767 \<and> action_group 769 \<and>
   action_group 771 \<and> action_group 773 \<and> action_group 775 \<and>
   action_group 777 \<and> action_group 779 \<and> action_group 781 \<and>
   action_group 783 \<and> action_group 785 \<and> action_group 787 \<and>
   action_group 789 \<and> action_group 791 \<and> action_group 793 \<and>
   action_group 795 \<and> action_group 797 \<and> action_group 799 \<and>
   action_group 801 \<and> action_group 803 \<and> action_group 805 \<and>
   action_group 807 \<and> action_group 809 \<and> action_group 811 \<and>
   action_group 813 \<and> action_group 815 \<and> action_group 817 \<and>
   action_group 819 \<and> action_group 821 \<and> action_group 823 \<and>
   action_group 825 \<and> action_group 827 \<and> action_group 829 \<and>
   action_group 831 \<and> action_group 833 \<and> action_group 835 \<and>
   action_group 837 \<and> action_group 839 \<and> action_group 841 \<and>
   action_group 843 \<and> action_group 845 \<and> action_group 847 \<and>
   action_group 849 \<and> action_group 851 \<and> action_group 853 \<and>
   action_group 855 \<and> action_group 857 \<and> action_group 859 \<and>
   action_group 861 \<and> action_group 863 \<and> action_group 865 \<and>
   action_group 867 \<and> action_group 869 \<and> action_group 871 \<and>
   action_group 873 \<and> action_group 875 \<and> action_group 877 \<and>
   action_group 879 \<and> action_group 881 \<and> action_group 883 \<and>
   action_group 885 \<and> action_group 887 \<and> action_group 889 \<and>
   action_group 891 \<and> action_group 893 \<and> action_group 895 \<and>
   action_group 897 \<and> action_group 899 \<and> action_group 901 \<and>
   action_group 903 \<and> action_group 905 \<and> action_group 907 \<and>
   action_group 909 \<and> action_group 911 \<and> action_group 913 \<and>
   action_group 915 \<and> action_group 917 \<and> action_group 919 \<and>
   action_group 921 \<and> action_group 923 \<and> action_group 925 \<and>
   action_group 927 \<and> action_group 929 \<and> action_group 931 \<and>
   action_group 933 \<and> action_group 935 \<and> action_group 937 \<and>
   action_group 939 \<and> action_group 941 \<and> action_group 943 \<and>
   action_group 945 \<and> action_group 947 \<and> action_group 949 \<and>
   action_group 951 \<and> action_group 953 \<and> action_group 955"
proof -
  have "set parse_actions_2 \<subseteq> set parse_action_rows" by (auto simp: parse_action_rows_def)
  from rows_groups [OF this] show ?thesis unfolding parse_actions_2_def by simp
qed

lemma action_groups_3:
  "action_group 957 \<and> action_group 959 \<and> action_group 961 \<and>
   action_group 963 \<and> action_group 965 \<and> action_group 967 \<and>
   action_group 969 \<and> action_group 971 \<and> action_group 973 \<and>
   action_group 975 \<and> action_group 977 \<and> action_group 979 \<and>
   action_group 981 \<and> action_group 983 \<and> action_group 985 \<and>
   action_group 987 \<and> action_group 989 \<and> action_group 991 \<and>
   action_group 993 \<and> action_group 995 \<and> action_group 997 \<and>
   action_group 999 \<and> action_group 1001 \<and> action_group 1003 \<and>
   action_group 1005 \<and> action_group 1007 \<and> action_group 1009 \<and>
   action_group 1011 \<and> action_group 1013 \<and> action_group 1015 \<and>
   action_group 1017 \<and> action_group 1019 \<and> action_group 1021 \<and>
   action_group 1023 \<and> action_group 1025 \<and> action_group 1027 \<and>
   action_group 1029 \<and> action_group 1031 \<and> action_group 1033 \<and>
   action_group 1035 \<and> action_group 1037 \<and> action_group 1039 \<and>
   action_group 1041 \<and> action_group 1043 \<and> action_group 1045 \<and>
   action_group 1047 \<and> action_group 1049 \<and> action_group 1051 \<and>
   action_group 1053 \<and> action_group 1055 \<and> action_group 1057 \<and>
   action_group 1059 \<and> action_group 1061 \<and> action_group 1063 \<and>
   action_group 1065 \<and> action_group 1067 \<and> action_group 1069 \<and>
   action_group 1071 \<and> action_group 1073 \<and> action_group 1075 \<and>
   action_group 1077 \<and> action_group 1079 \<and> action_group 1081 \<and>
   action_group 1083 \<and> action_group 1085 \<and> action_group 1087 \<and>
   action_group 1089 \<and> action_group 1091 \<and> action_group 1093 \<and>
   action_group 1095 \<and> action_group 1097 \<and> action_group 1099 \<and>
   action_group 1101 \<and> action_group 1103 \<and> action_group 1105 \<and>
   action_group 1107 \<and> action_group 1109 \<and> action_group 1111 \<and>
   action_group 1113 \<and> action_group 1115 \<and> action_group 1117 \<and>
   action_group 1119 \<and> action_group 1121 \<and> action_group 1123 \<and>
   action_group 1125 \<and> action_group 1127 \<and> action_group 1129 \<and>
   action_group 1131 \<and> action_group 1133 \<and> action_group 1135 \<and>
   action_group 1137 \<and> action_group 1139 \<and> action_group 1141 \<and>
   action_group 1143 \<and> action_group 1145 \<and> action_group 1147 \<and>
   action_group 1149 \<and> action_group 1151 \<and> action_group 1153 \<and>
   action_group 1155 \<and> action_group 1157 \<and> action_group 1159 \<and>
   action_group 1161 \<and> action_group 1163 \<and> action_group 1165 \<and>
   action_group 1167 \<and> action_group 1169 \<and> action_group 1171 \<and>
   action_group 1173 \<and> action_group 1175 \<and> action_group 1177 \<and>
   action_group 1179 \<and> action_group 1181 \<and> action_group 1183 \<and>
   action_group 1185 \<and> action_group 1187 \<and> action_group 1189 \<and>
   action_group 1191 \<and> action_group 1193 \<and> action_group 1195 \<and>
   action_group 1197 \<and> action_group 1199 \<and> action_group 1201 \<and>
   action_group 1203 \<and> action_group 1205 \<and> action_group 1207 \<and>
   action_group 1209 \<and> action_group 1211 \<and> action_group 1213 \<and>
   action_group 1215 \<and> action_group 1217 \<and> action_group 1219 \<and>
   action_group 1221 \<and> action_group 1223 \<and> action_group 1225 \<and>
   action_group 1227 \<and> action_group 1229 \<and> action_group 1231 \<and>
   action_group 1233 \<and> action_group 1235 \<and> action_group 1237 \<and>
   action_group 1239 \<and> action_group 1241 \<and> action_group 1243 \<and>
   action_group 1245 \<and> action_group 1247 \<and> action_group 1249 \<and>
   action_group 1251 \<and> action_group 1253 \<and> action_group 1255"
proof -
  have "set parse_actions_3 \<subseteq> set parse_action_rows" by (auto simp: parse_action_rows_def)
  from rows_groups [OF this] show ?thesis unfolding parse_actions_3_def by simp
qed

lemma action_groups_4:
  "action_group 1257 \<and> action_group 1259 \<and> action_group 1261 \<and>
   action_group 1263 \<and> action_group 1265 \<and> action_group 1267 \<and>
   action_group 1269 \<and> action_group 1271 \<and> action_group 1273 \<and>
   action_group 1275 \<and> action_group 1277 \<and> action_group 1279 \<and>
   action_group 1281 \<and> action_group 1283 \<and> action_group 1285 \<and>
   action_group 1287 \<and> action_group 1289 \<and> action_group 1291 \<and>
   action_group 1293 \<and> action_group 1295 \<and> action_group 1297 \<and>
   action_group 1299 \<and> action_group 1301 \<and> action_group 1303 \<and>
   action_group 1305 \<and> action_group 1307 \<and> action_group 1309 \<and>
   action_group 1311 \<and> action_group 1313 \<and> action_group 1315 \<and>
   action_group 1317 \<and> action_group 1319 \<and> action_group 1321 \<and>
   action_group 1323 \<and> action_group 1325 \<and> action_group 1327 \<and>
   action_group 1329 \<and> action_group 1331 \<and> action_group 1333 \<and>
   action_group 1335 \<and> action_group 1337 \<and> action_group 1339 \<and>
   action_group 1341 \<and> action_group 1343 \<and> action_group 1345 \<and>
   action_group 1347 \<and> action_group 1349 \<and> action_group 1351 \<and>
   action_group 1353 \<and> action_group 1355 \<and> action_group 1357 \<and>
   action_group 1359 \<and> action_group 1361 \<and> action_group 1363 \<and>
   action_group 1365 \<and> action_group 1367 \<and> action_group 1369 \<and>
   action_group 1371 \<and> action_group 1373 \<and> action_group 1375 \<and>
   action_group 1377 \<and> action_group 1379 \<and> action_group 1381 \<and>
   action_group 1383 \<and> action_group 1385 \<and> action_group 1387 \<and>
   action_group 1389 \<and> action_group 1391 \<and> action_group 1393 \<and>
   action_group 1395 \<and> action_group 1397 \<and> action_group 1399 \<and>
   action_group 1401 \<and> action_group 1403 \<and> action_group 1405 \<and>
   action_group 1407 \<and> action_group 1409 \<and> action_group 1411 \<and>
   action_group 1413 \<and> action_group 1415 \<and> action_group 1417 \<and>
   action_group 1419 \<and> action_group 1421 \<and> action_group 1423 \<and>
   action_group 1425 \<and> action_group 1427 \<and> action_group 1429 \<and>
   action_group 1431 \<and> action_group 1433 \<and> action_group 1435 \<and>
   action_group 1437 \<and> action_group 1439 \<and> action_group 1441 \<and>
   action_group 1443 \<and> action_group 1445 \<and> action_group 1447 \<and>
   action_group 1449 \<and> action_group 1451 \<and> action_group 1453 \<and>
   action_group 1455 \<and> action_group 1457 \<and> action_group 1459 \<and>
   action_group 1461 \<and> action_group 1463 \<and> action_group 1465 \<and>
   action_group 1467 \<and> action_group 1469 \<and> action_group 1471 \<and>
   action_group 1473 \<and> action_group 1475 \<and> action_group 1477 \<and>
   action_group 1479 \<and> action_group 1481 \<and> action_group 1483 \<and>
   action_group 1485 \<and> action_group 1487 \<and> action_group 1489 \<and>
   action_group 1491 \<and> action_group 1493 \<and> action_group 1495 \<and>
   action_group 1497 \<and> action_group 1499 \<and> action_group 1502 \<and>
   action_group 1505 \<and> action_group 1508 \<and> action_group 1510 \<and>
   action_group 1512 \<and> action_group 1514 \<and> action_group 1517 \<and>
   action_group 1519 \<and> action_group 1521 \<and> action_group 1523 \<and>
   action_group 1526 \<and> action_group 1528 \<and> action_group 1530 \<and>
   action_group 1533 \<and> action_group 1536 \<and> action_group 1538 \<and>
   action_group 1540 \<and> action_group 1542 \<and> action_group 1544 \<and>
   action_group 1546 \<and> action_group 1548 \<and> action_group 1550 \<and>
   action_group 1552 \<and> action_group 1554 \<and> action_group 1556 \<and>
   action_group 1558 \<and> action_group 1560 \<and> action_group 1562"
proof -
  have "set parse_actions_4 \<subseteq> set parse_action_rows" by (auto simp: parse_action_rows_def)
  from rows_groups [OF this] show ?thesis unfolding parse_actions_4_def by simp
qed

lemma action_groups_5:
  "action_group 1564 \<and> action_group 1567 \<and> action_group 1569 \<and>
   action_group 1572 \<and> action_group 1575 \<and> action_group 1577 \<and>
   action_group 1579 \<and> action_group 1581 \<and> action_group 1583 \<and>
   action_group 1586 \<and> action_group 1589 \<and> action_group 1592 \<and>
   action_group 1594 \<and> action_group 1596 \<and> action_group 1598 \<and>
   action_group 1600 \<and> action_group 1602 \<and> action_group 1604 \<and>
   action_group 1606 \<and> action_group 1608 \<and> action_group 1610 \<and>
   action_group 1612 \<and> action_group 1614 \<and> action_group 1616 \<and>
   action_group 1618 \<and> action_group 1620 \<and> action_group 1622 \<and>
   action_group 1624 \<and> action_group 1626 \<and> action_group 1628 \<and>
   action_group 1630 \<and> action_group 1632 \<and> action_group 1634 \<and>
   action_group 1636 \<and> action_group 1638 \<and> action_group 1640 \<and>
   action_group 1642 \<and> action_group 1644 \<and> action_group 1646 \<and>
   action_group 1648 \<and> action_group 1650 \<and> action_group 1652 \<and>
   action_group 1654 \<and> action_group 1656 \<and> action_group 1658 \<and>
   action_group 1660 \<and> action_group 1662 \<and> action_group 1664 \<and>
   action_group 1666 \<and> action_group 1668 \<and> action_group 1670 \<and>
   action_group 1672 \<and> action_group 1674 \<and> action_group 1676 \<and>
   action_group 1678 \<and> action_group 1680 \<and> action_group 1682 \<and>
   action_group 1684 \<and> action_group 1686 \<and> action_group 1688 \<and>
   action_group 1690 \<and> action_group 1692 \<and> action_group 1694 \<and>
   action_group 1696 \<and> action_group 1698 \<and> action_group 1700 \<and>
   action_group 1702 \<and> action_group 1704 \<and> action_group 1706 \<and>
   action_group 1708 \<and> action_group 1710 \<and> action_group 1712 \<and>
   action_group 1714 \<and> action_group 1716 \<and> action_group 1718 \<and>
   action_group 1720 \<and> action_group 1722 \<and> action_group 1724 \<and>
   action_group 1726 \<and> action_group 1728 \<and> action_group 1730 \<and>
   action_group 1732 \<and> action_group 1734 \<and> action_group 1736 \<and>
   action_group 1738 \<and> action_group 1740 \<and> action_group 1742 \<and>
   action_group 1744 \<and> action_group 1746 \<and> action_group 1748 \<and>
   action_group 1750 \<and> action_group 1752 \<and> action_group 1754 \<and>
   action_group 1756 \<and> action_group 1758 \<and> action_group 1760 \<and>
   action_group 1762 \<and> action_group 1764 \<and> action_group 1766 \<and>
   action_group 1768 \<and> action_group 1770 \<and> action_group 1772 \<and>
   action_group 1774 \<and> action_group 1776 \<and> action_group 1778 \<and>
   action_group 1780 \<and> action_group 1782 \<and> action_group 1784 \<and>
   action_group 1786 \<and> action_group 1788 \<and> action_group 1790 \<and>
   action_group 1792 \<and> action_group 1794 \<and> action_group 1796 \<and>
   action_group 1798 \<and> action_group 1800 \<and> action_group 1802 \<and>
   action_group 1804 \<and> action_group 1806 \<and> action_group 1808 \<and>
   action_group 1810 \<and> action_group 1812 \<and> action_group 1814 \<and>
   action_group 1816 \<and> action_group 1818 \<and> action_group 1820 \<and>
   action_group 1822 \<and> action_group 1824 \<and> action_group 1826 \<and> action_group 1828"
proof -
  have "set parse_actions_5 \<subseteq> set parse_action_rows" by (auto simp: parse_action_rows_def)
  from rows_groups [OF this] show ?thesis unfolding parse_actions_5_def by simp
qed

section \<open>Entries\<close>

definition external_terminal :: "nat \<Rightarrow> bool" where
  "external_terminal s \<longleftrightarrow> s \<in> set ts_external_scanner_symbol_map"

text \<open>There is an input that the lexers scan as the token \<open>a\<close>, starting in the lexical state \<open>q\<close>; the error
  state 0 is left out.\<close>

definition lexable :: "nat \<Rightarrow> nat \<Rightarrow> bool" where
  "lexable q a \<longleftrightarrow> q = 0 \<or> external_terminal a \<or> (\<exists>w. scans_as q w a) \<or>
     q \<in> set word_start_states \<and> a \<in> snd ` set keyword_list"

text \<open>A terminal that can be scanned selects a group of actions, a nonterminal a state other than the error
  state.\<close>

definition entry_fits :: "nat \<Rightarrow> nat \<Rightarrow> nat \<Rightarrow> bool" where
  "entry_fits q symbol v \<longleftrightarrow> (if symbol < TOKEN_COUNT then lexable q symbol \<and> action_group v
     else symbol < SYMBOL_COUNT \<and> 0 < v \<and> v < STATE_COUNT)"

lemma terminal_entry:
  "symbol < TOKEN_COUNT \<Longrightarrow> lexable q symbol \<Longrightarrow> action_group v \<Longrightarrow> entry_fits q symbol (ACTIONS v)"
  by (simp add: entry_fits_def ACTIONS_def)

lemma nonterminal_entry:
  "TOKEN_COUNT \<le> symbol \<and> symbol < SYMBOL_COUNT \<Longrightarrow> 0 < v \<Longrightarrow> v < 12758 \<Longrightarrow> entry_fits q symbol (STATE v)"
  by (simp add: entry_fits_def STATE_def STATE_COUNT_def)

lemma terminal_symbols:
  "anon_sym_AMP < TOKEN_COUNT"
  "anon_sym_AMP_EQ < TOKEN_COUNT"
  "anon_sym_AT < TOKEN_COUNT"
  "anon_sym_AT_EQ < TOKEN_COUNT"
  "anon_sym_BANG_EQ < TOKEN_COUNT"
  "anon_sym_BSLASH < TOKEN_COUNT"
  "anon_sym_CARET < TOKEN_COUNT"
  "anon_sym_CARET_EQ < TOKEN_COUNT"
  "anon_sym_COLON < TOKEN_COUNT"
  "anon_sym_COLON_EQ < TOKEN_COUNT"
  "anon_sym_COMMA < TOKEN_COUNT"
  "anon_sym_DASH < TOKEN_COUNT"
  "anon_sym_DASH_EQ < TOKEN_COUNT"
  "anon_sym_DASH_GT < TOKEN_COUNT"
  "anon_sym_DOT < TOKEN_COUNT"
  "anon_sym_EQ < TOKEN_COUNT"
  "anon_sym_EQ_EQ < TOKEN_COUNT"
  "anon_sym_GT < TOKEN_COUNT"
  "anon_sym_GT_EQ < TOKEN_COUNT"
  "anon_sym_GT_GT < TOKEN_COUNT"
  "anon_sym_GT_GT_EQ < TOKEN_COUNT"
  "anon_sym_LBRACE < TOKEN_COUNT"
  "anon_sym_LBRACK < TOKEN_COUNT"
  "anon_sym_LPAREN < TOKEN_COUNT"
  "anon_sym_LT < TOKEN_COUNT"
  "anon_sym_LT_EQ < TOKEN_COUNT"
  "anon_sym_LT_GT < TOKEN_COUNT"
  "anon_sym_LT_LT < TOKEN_COUNT"
  "anon_sym_LT_LT_EQ < TOKEN_COUNT"
  "anon_sym_PERCENT < TOKEN_COUNT"
  "anon_sym_PERCENT_EQ < TOKEN_COUNT"
  "anon_sym_PIPE < TOKEN_COUNT"
  "anon_sym_PIPE_EQ < TOKEN_COUNT"
  "anon_sym_PLUS < TOKEN_COUNT"
  "anon_sym_PLUS_EQ < TOKEN_COUNT"
  "anon_sym_RBRACE < TOKEN_COUNT"
  "anon_sym_RBRACK < TOKEN_COUNT"
  "anon_sym_RPAREN < TOKEN_COUNT"
  "anon_sym_SEMI < TOKEN_COUNT"
  "anon_sym_SLASH < TOKEN_COUNT"
  "anon_sym_SLASH_EQ < TOKEN_COUNT"
  "anon_sym_SLASH_SLASH < TOKEN_COUNT"
  "anon_sym_SLASH_SLASH_EQ < TOKEN_COUNT"
  "anon_sym_STAR < TOKEN_COUNT"
  "anon_sym_STAR_EQ < TOKEN_COUNT"
  "anon_sym_STAR_STAR < TOKEN_COUNT"
  "anon_sym_STAR_STAR_EQ < TOKEN_COUNT"
  "anon_sym_TILDE < TOKEN_COUNT"
  "anon_sym___comptime_assert < TOKEN_COUNT"
  "anon_sym___extension < TOKEN_COUNT"
  "anon_sym___future__tok < TOKEN_COUNT"
  "anon_sym___mlir_region < TOKEN_COUNT"
  "anon_sym___mlir_type < TOKEN_COUNT"
  "anon_sym__tok < TOKEN_COUNT"
  "anon_sym_abi < TOKEN_COUNT"
  "anon_sym_and < TOKEN_COUNT"
  "anon_sym_as < TOKEN_COUNT"
  "anon_sym_assert < TOKEN_COUNT"
  "anon_sym_async < TOKEN_COUNT"
  "anon_sym_await < TOKEN_COUNT"
  "anon_sym_borrowed < TOKEN_COUNT"
  "anon_sym_break < TOKEN_COUNT"
  "anon_sym_capturing < TOKEN_COUNT"
  "anon_sym_case < TOKEN_COUNT"
  "anon_sym_class < TOKEN_COUNT"
  "anon_sym_comptime < TOKEN_COUNT"
  "anon_sym_continue < TOKEN_COUNT"
  "anon_sym_def < TOKEN_COUNT"
  "anon_sym_deinit < TOKEN_COUNT"
  "anon_sym_del < TOKEN_COUNT"
  "anon_sym_elif < TOKEN_COUNT"
  "anon_sym_else < TOKEN_COUNT"
  "anon_sym_escaping < TOKEN_COUNT"
  "anon_sym_except < TOKEN_COUNT"
  "anon_sym_except_STAR < TOKEN_COUNT"
  "anon_sym_exec < TOKEN_COUNT"
  "anon_sym_finally < TOKEN_COUNT"
  "anon_sym_fn < TOKEN_COUNT"
  "anon_sym_for < TOKEN_COUNT"
  "anon_sym_from < TOKEN_COUNT"
  "anon_sym_global < TOKEN_COUNT"
  "anon_sym_if < TOKEN_COUNT"
  "anon_sym_import < TOKEN_COUNT"
  "anon_sym_in < TOKEN_COUNT"
  "anon_sym_inferred < TOKEN_COUNT"
  "anon_sym_inout < TOKEN_COUNT"
  "anon_sym_is < TOKEN_COUNT"
  "anon_sym_lambda < TOKEN_COUNT"
  "anon_sym_match < TOKEN_COUNT"
  "anon_sym_mut < TOKEN_COUNT"
  "anon_sym_nonlocal < TOKEN_COUNT"
  "anon_sym_not < TOKEN_COUNT"
  "anon_sym_or < TOKEN_COUNT"
  "anon_sym_out < TOKEN_COUNT"
  "anon_sym_owned < TOKEN_COUNT"
  "anon_sym_pass < TOKEN_COUNT"
  "anon_sym_print < TOKEN_COUNT"
  "anon_sym_raise < TOKEN_COUNT"
  "anon_sym_raises < TOKEN_COUNT"
  "anon_sym_read < TOKEN_COUNT"
  "anon_sym_ref < TOKEN_COUNT"
  "anon_sym_return < TOKEN_COUNT"
  "anon_sym_self < TOKEN_COUNT"
  "anon_sym_struct < TOKEN_COUNT"
  "anon_sym_thin < TOKEN_COUNT"
  "anon_sym_trait < TOKEN_COUNT"
  "anon_sym_try < TOKEN_COUNT"
  "anon_sym_type < TOKEN_COUNT"
  "anon_sym_unified < TOKEN_COUNT"
  "anon_sym_var < TOKEN_COUNT"
  "anon_sym_where < TOKEN_COUNT"
  "anon_sym_while < TOKEN_COUNT"
  "anon_sym_with < TOKEN_COUNT"
  "anon_sym_yield < TOKEN_COUNT"
  "sym__dedent < TOKEN_COUNT"
  "sym__indent < TOKEN_COUNT"
  "sym__mlir_backtick < TOKEN_COUNT"
  "sym__mlir_ident < TOKEN_COUNT"
  "sym__mlir_number < TOKEN_COUNT"
  "sym__newline < TOKEN_COUNT"
  "sym__string_content < TOKEN_COUNT"
  "sym_comment < TOKEN_COUNT"
  "sym_ellipsis < TOKEN_COUNT"
  "sym_escape_interpolation < TOKEN_COUNT"
  "sym_escape_sequence < TOKEN_COUNT"
  "sym_false < TOKEN_COUNT"
  "sym_float < TOKEN_COUNT"
  "sym_identifier < TOKEN_COUNT"
  "sym_integer < TOKEN_COUNT"
  "sym_line_continuation < TOKEN_COUNT"
  "sym_mlir_punctuation < TOKEN_COUNT"
  "sym_none < TOKEN_COUNT"
  "sym_string_end < TOKEN_COUNT"
  "sym_string_start < TOKEN_COUNT"
  "sym_true < TOKEN_COUNT"
  "sym_type_conversion < TOKEN_COUNT"
  "ts_builtin_sym_end < TOKEN_COUNT"
  by (simp_all add: TOKEN_COUNT_def symbol_number_defs)

lemma nonterminal_symbols:
  "TOKEN_COUNT \<le> aux_sym_decorated_definition_repeat1 \<and> aux_sym_decorated_definition_repeat1 < SYMBOL_COUNT"
  "TOKEN_COUNT \<le> aux_sym_module_repeat1 \<and> aux_sym_module_repeat1 < SYMBOL_COUNT"
  "TOKEN_COUNT \<le> sym__intersection_operand \<and> sym__intersection_operand < SYMBOL_COUNT"
  "TOKEN_COUNT \<le> sym__named_expression_lhs \<and> sym__named_expression_lhs < SYMBOL_COUNT"
  "TOKEN_COUNT \<le> sym__simple_statements \<and> sym__simple_statements < SYMBOL_COUNT"
  "TOKEN_COUNT \<le> sym__statement \<and> sym__statement < SYMBOL_COUNT"
  "TOKEN_COUNT \<le> sym_as_pattern \<and> sym_as_pattern < SYMBOL_COUNT"
  "TOKEN_COUNT \<le> sym_assert_statement \<and> sym_assert_statement < SYMBOL_COUNT"
  "TOKEN_COUNT \<le> sym_assignment \<and> sym_assignment < SYMBOL_COUNT"
  "TOKEN_COUNT \<le> sym_attribute \<and> sym_attribute < SYMBOL_COUNT"
  "TOKEN_COUNT \<le> sym_augmented_assignment \<and> sym_augmented_assignment < SYMBOL_COUNT"
  "TOKEN_COUNT \<le> sym_await \<and> sym_await < SYMBOL_COUNT"
  "TOKEN_COUNT \<le> sym_binary_operator \<and> sym_binary_operator < SYMBOL_COUNT"
  "TOKEN_COUNT \<le> sym_block \<and> sym_block < SYMBOL_COUNT"
  "TOKEN_COUNT \<le> sym_boolean_operator \<and> sym_boolean_operator < SYMBOL_COUNT"
  "TOKEN_COUNT \<le> sym_break_statement \<and> sym_break_statement < SYMBOL_COUNT"
  "TOKEN_COUNT \<le> sym_call \<and> sym_call < SYMBOL_COUNT"
  "TOKEN_COUNT \<le> sym_called_type \<and> sym_called_type < SYMBOL_COUNT"
  "TOKEN_COUNT \<le> sym_chevron \<and> sym_chevron < SYMBOL_COUNT"
  "TOKEN_COUNT \<le> sym_class_definition \<and> sym_class_definition < SYMBOL_COUNT"
  "TOKEN_COUNT \<le> sym_comparison_operator \<and> sym_comparison_operator < SYMBOL_COUNT"
  "TOKEN_COUNT \<le> sym_comptime_assert_statement \<and> sym_comptime_assert_statement < SYMBOL_COUNT"
  "TOKEN_COUNT \<le> sym_comptime_expression \<and> sym_comptime_expression < SYMBOL_COUNT"
  "TOKEN_COUNT \<le> sym_comptime_statement \<and> sym_comptime_statement < SYMBOL_COUNT"
  "TOKEN_COUNT \<le> sym_concatenated_string \<and> sym_concatenated_string < SYMBOL_COUNT"
  "TOKEN_COUNT \<le> sym_conditional_expression \<and> sym_conditional_expression < SYMBOL_COUNT"
  "TOKEN_COUNT \<le> sym_constrained_type \<and> sym_constrained_type < SYMBOL_COUNT"
  "TOKEN_COUNT \<le> sym_continue_statement \<and> sym_continue_statement < SYMBOL_COUNT"
  "TOKEN_COUNT \<le> sym_decorated_definition \<and> sym_decorated_definition < SYMBOL_COUNT"
  "TOKEN_COUNT \<le> sym_decorator \<and> sym_decorator < SYMBOL_COUNT"
  "TOKEN_COUNT \<le> sym_delete_statement \<and> sym_delete_statement < SYMBOL_COUNT"
  "TOKEN_COUNT \<le> sym_dictionary \<and> sym_dictionary < SYMBOL_COUNT"
  "TOKEN_COUNT \<le> sym_dictionary_comprehension \<and> sym_dictionary_comprehension < SYMBOL_COUNT"
  "TOKEN_COUNT \<le> sym_exec_statement \<and> sym_exec_statement < SYMBOL_COUNT"
  "TOKEN_COUNT \<le> sym_expression \<and> sym_expression < SYMBOL_COUNT"
  "TOKEN_COUNT \<le> sym_expression_statement \<and> sym_expression_statement < SYMBOL_COUNT"
  "TOKEN_COUNT \<le> sym_extension_definition \<and> sym_extension_definition < SYMBOL_COUNT"
  "TOKEN_COUNT \<le> sym_for_statement \<and> sym_for_statement < SYMBOL_COUNT"
  "TOKEN_COUNT \<le> sym_function_definition \<and> sym_function_definition < SYMBOL_COUNT"
  "TOKEN_COUNT \<le> sym_function_type \<and> sym_function_type < SYMBOL_COUNT"
  "TOKEN_COUNT \<le> sym_future_import_statement \<and> sym_future_import_statement < SYMBOL_COUNT"
  "TOKEN_COUNT \<le> sym_generator_expression \<and> sym_generator_expression < SYMBOL_COUNT"
  "TOKEN_COUNT \<le> sym_generic_type \<and> sym_generic_type < SYMBOL_COUNT"
  "TOKEN_COUNT \<le> sym_global_statement \<and> sym_global_statement < SYMBOL_COUNT"
  "TOKEN_COUNT \<le> sym_if_statement \<and> sym_if_statement < SYMBOL_COUNT"
  "TOKEN_COUNT \<le> sym_import_from_statement \<and> sym_import_from_statement < SYMBOL_COUNT"
  "TOKEN_COUNT \<le> sym_import_statement \<and> sym_import_statement < SYMBOL_COUNT"
  "TOKEN_COUNT \<le> sym_intersection_type \<and> sym_intersection_type < SYMBOL_COUNT"
  "TOKEN_COUNT \<le> sym_lambda \<and> sym_lambda < SYMBOL_COUNT"
  "TOKEN_COUNT \<le> sym_list \<and> sym_list < SYMBOL_COUNT"
  "TOKEN_COUNT \<le> sym_list_comprehension \<and> sym_list_comprehension < SYMBOL_COUNT"
  "TOKEN_COUNT \<le> sym_list_pattern \<and> sym_list_pattern < SYMBOL_COUNT"
  "TOKEN_COUNT \<le> sym_list_splat_pattern \<and> sym_list_splat_pattern < SYMBOL_COUNT"
  "TOKEN_COUNT \<le> sym_match_statement \<and> sym_match_statement < SYMBOL_COUNT"
  "TOKEN_COUNT \<le> sym_member_type \<and> sym_member_type < SYMBOL_COUNT"
  "TOKEN_COUNT \<le> sym_mlir_region \<and> sym_mlir_region < SYMBOL_COUNT"
  "TOKEN_COUNT \<le> sym_mlir_type \<and> sym_mlir_type < SYMBOL_COUNT"
  "TOKEN_COUNT \<le> sym_module \<and> sym_module < SYMBOL_COUNT"
  "TOKEN_COUNT \<le> sym_named_expression \<and> sym_named_expression < SYMBOL_COUNT"
  "TOKEN_COUNT \<le> sym_nonlocal_statement \<and> sym_nonlocal_statement < SYMBOL_COUNT"
  "TOKEN_COUNT \<le> sym_not_operator \<and> sym_not_operator < SYMBOL_COUNT"
  "TOKEN_COUNT \<le> sym_parameterized_alias_statement \<and> sym_parameterized_alias_statement < SYMBOL_COUNT"
  "TOKEN_COUNT \<le> sym_parenthesized_expression \<and> sym_parenthesized_expression < SYMBOL_COUNT"
  "TOKEN_COUNT \<le> sym_pass_statement \<and> sym_pass_statement < SYMBOL_COUNT"
  "TOKEN_COUNT \<le> sym_pattern \<and> sym_pattern < SYMBOL_COUNT"
  "TOKEN_COUNT \<le> sym_pattern_list \<and> sym_pattern_list < SYMBOL_COUNT"
  "TOKEN_COUNT \<le> sym_primary_expression \<and> sym_primary_expression < SYMBOL_COUNT"
  "TOKEN_COUNT \<le> sym_print_statement \<and> sym_print_statement < SYMBOL_COUNT"
  "TOKEN_COUNT \<le> sym_raise_statement \<and> sym_raise_statement < SYMBOL_COUNT"
  "TOKEN_COUNT \<le> sym_return_statement \<and> sym_return_statement < SYMBOL_COUNT"
  "TOKEN_COUNT \<le> sym_set \<and> sym_set < SYMBOL_COUNT"
  "TOKEN_COUNT \<le> sym_set_comprehension \<and> sym_set_comprehension < SYMBOL_COUNT"
  "TOKEN_COUNT \<le> sym_splat_type \<and> sym_splat_type < SYMBOL_COUNT"
  "TOKEN_COUNT \<le> sym_string \<and> sym_string < SYMBOL_COUNT"
  "TOKEN_COUNT \<le> sym_struct_literal \<and> sym_struct_literal < SYMBOL_COUNT"
  "TOKEN_COUNT \<le> sym_subscript \<and> sym_subscript < SYMBOL_COUNT"
  "TOKEN_COUNT \<le> sym_trait_definition \<and> sym_trait_definition < SYMBOL_COUNT"
  "TOKEN_COUNT \<le> sym_transfer_expression \<and> sym_transfer_expression < SYMBOL_COUNT"
  "TOKEN_COUNT \<le> sym_try_statement \<and> sym_try_statement < SYMBOL_COUNT"
  "TOKEN_COUNT \<le> sym_tuple \<and> sym_tuple < SYMBOL_COUNT"
  "TOKEN_COUNT \<le> sym_tuple_expression \<and> sym_tuple_expression < SYMBOL_COUNT"
  "TOKEN_COUNT \<le> sym_tuple_pattern \<and> sym_tuple_pattern < SYMBOL_COUNT"
  "TOKEN_COUNT \<le> sym_type \<and> sym_type < SYMBOL_COUNT"
  "TOKEN_COUNT \<le> sym_type_alias_statement \<and> sym_type_alias_statement < SYMBOL_COUNT"
  "TOKEN_COUNT \<le> sym_type_parameter \<and> sym_type_parameter < SYMBOL_COUNT"
  "TOKEN_COUNT \<le> sym_unary_operator \<and> sym_unary_operator < SYMBOL_COUNT"
  "TOKEN_COUNT \<le> sym_union_type \<and> sym_union_type < SYMBOL_COUNT"
  "TOKEN_COUNT \<le> sym_while_statement \<and> sym_while_statement < SYMBOL_COUNT"
  "TOKEN_COUNT \<le> sym_with_statement \<and> sym_with_statement < SYMBOL_COUNT"
  "TOKEN_COUNT \<le> sym_yield \<and> sym_yield < SYMBOL_COUNT"
  by (simp_all add: TOKEN_COUNT_def SYMBOL_COUNT_def symbol_number_defs)

lemmas terminal_entries = terminal_symbols [THEN terminal_entry]

lemmas nonterminal_entries = nonterminal_symbols [THEN nonterminal_entry]

section \<open>External tokens\<close>

text \<open>The terminals behind the external tokens that are valid in an external lexical state, in the order of
  their numbers.\<close>

definition valid_terminals :: "nat \<Rightarrow> nat list" where
  "valid_terminals e = filter (\<lambda>s. (s, True) \<in> set (zip ts_external_scanner_symbol_map
     (ts_external_scanner_states ! e))) [0..<TOKEN_COUNT]"

lemma external_terminal_numbers: "external_terminal s \<longleftrightarrow> s \<in> set [127, 128, 129, 130, 131, 132, 133, 125, 43, 8, 46, 37, 134, 135, 136, 137]"
proof -
  have "ts_external_scanner_symbol_map = [127, 128, 129, 130, 131, 132, 133, 125, 43, 8, 46, 37, 134, 135, 136, 137]" by code_simp
  then show ?thesis unfolding external_terminal_def by (rule arg_cong)
qed

lemma external_terminals [simp]:
  "\<not> external_terminal anon_sym_AMP"
  "\<not> external_terminal anon_sym_AMP_EQ"
  "\<not> external_terminal anon_sym_AT"
  "\<not> external_terminal anon_sym_AT_EQ"
  "\<not> external_terminal anon_sym_BANG_EQ"
  "\<not> external_terminal anon_sym_BSLASH"
  "\<not> external_terminal anon_sym_CARET"
  "\<not> external_terminal anon_sym_CARET_EQ"
  "\<not> external_terminal anon_sym_COLON"
  "\<not> external_terminal anon_sym_COLON_EQ"
  "\<not> external_terminal anon_sym_COMMA"
  "\<not> external_terminal anon_sym_DASH"
  "\<not> external_terminal anon_sym_DASH_EQ"
  "\<not> external_terminal anon_sym_DASH_GT"
  "\<not> external_terminal anon_sym_DOT"
  "\<not> external_terminal anon_sym_EQ"
  "\<not> external_terminal anon_sym_EQ_EQ"
  "\<not> external_terminal anon_sym_GT"
  "\<not> external_terminal anon_sym_GT_EQ"
  "\<not> external_terminal anon_sym_GT_GT"
  "\<not> external_terminal anon_sym_GT_GT_EQ"
  "\<not> external_terminal anon_sym_LBRACE"
  "\<not> external_terminal anon_sym_LBRACK"
  "\<not> external_terminal anon_sym_LPAREN"
  "\<not> external_terminal anon_sym_LT"
  "\<not> external_terminal anon_sym_LT_EQ"
  "\<not> external_terminal anon_sym_LT_GT"
  "\<not> external_terminal anon_sym_LT_LT"
  "\<not> external_terminal anon_sym_LT_LT_EQ"
  "\<not> external_terminal anon_sym_PERCENT"
  "\<not> external_terminal anon_sym_PERCENT_EQ"
  "\<not> external_terminal anon_sym_PIPE"
  "\<not> external_terminal anon_sym_PIPE_EQ"
  "\<not> external_terminal anon_sym_PLUS"
  "\<not> external_terminal anon_sym_PLUS_EQ"
  "external_terminal anon_sym_RBRACE"
  "external_terminal anon_sym_RBRACK"
  "external_terminal anon_sym_RPAREN"
  "\<not> external_terminal anon_sym_SEMI"
  "\<not> external_terminal anon_sym_SLASH"
  "\<not> external_terminal anon_sym_SLASH_EQ"
  "\<not> external_terminal anon_sym_SLASH_SLASH"
  "\<not> external_terminal anon_sym_SLASH_SLASH_EQ"
  "\<not> external_terminal anon_sym_STAR"
  "\<not> external_terminal anon_sym_STAR_EQ"
  "\<not> external_terminal anon_sym_STAR_STAR"
  "\<not> external_terminal anon_sym_STAR_STAR_EQ"
  "\<not> external_terminal anon_sym_TILDE"
  "\<not> external_terminal anon_sym___comptime_assert"
  "\<not> external_terminal anon_sym___extension"
  "\<not> external_terminal anon_sym___future__tok"
  "\<not> external_terminal anon_sym___mlir_region"
  "\<not> external_terminal anon_sym___mlir_type"
  "\<not> external_terminal anon_sym__tok"
  "\<not> external_terminal anon_sym_abi"
  "\<not> external_terminal anon_sym_and"
  "\<not> external_terminal anon_sym_as"
  "\<not> external_terminal anon_sym_assert"
  "\<not> external_terminal anon_sym_async"
  "\<not> external_terminal anon_sym_await"
  "\<not> external_terminal anon_sym_borrowed"
  "\<not> external_terminal anon_sym_break"
  "\<not> external_terminal anon_sym_capturing"
  "\<not> external_terminal anon_sym_case"
  "\<not> external_terminal anon_sym_class"
  "\<not> external_terminal anon_sym_comptime"
  "\<not> external_terminal anon_sym_continue"
  "\<not> external_terminal anon_sym_def"
  "\<not> external_terminal anon_sym_deinit"
  "\<not> external_terminal anon_sym_del"
  "\<not> external_terminal anon_sym_elif"
  "\<not> external_terminal anon_sym_else"
  "\<not> external_terminal anon_sym_escaping"
  "external_terminal anon_sym_except"
  "\<not> external_terminal anon_sym_except_STAR"
  "\<not> external_terminal anon_sym_exec"
  "\<not> external_terminal anon_sym_finally"
  "\<not> external_terminal anon_sym_fn"
  "\<not> external_terminal anon_sym_for"
  "\<not> external_terminal anon_sym_from"
  "\<not> external_terminal anon_sym_global"
  "\<not> external_terminal anon_sym_if"
  "\<not> external_terminal anon_sym_import"
  "\<not> external_terminal anon_sym_in"
  "\<not> external_terminal anon_sym_inferred"
  "\<not> external_terminal anon_sym_inout"
  "\<not> external_terminal anon_sym_is"
  "\<not> external_terminal anon_sym_lambda"
  "\<not> external_terminal anon_sym_match"
  "\<not> external_terminal anon_sym_mut"
  "\<not> external_terminal anon_sym_nonlocal"
  "\<not> external_terminal anon_sym_not"
  "\<not> external_terminal anon_sym_or"
  "\<not> external_terminal anon_sym_out"
  "\<not> external_terminal anon_sym_owned"
  "\<not> external_terminal anon_sym_pass"
  "\<not> external_terminal anon_sym_print"
  "\<not> external_terminal anon_sym_raise"
  "\<not> external_terminal anon_sym_raises"
  "\<not> external_terminal anon_sym_read"
  "\<not> external_terminal anon_sym_ref"
  "\<not> external_terminal anon_sym_return"
  "\<not> external_terminal anon_sym_self"
  "\<not> external_terminal anon_sym_struct"
  "\<not> external_terminal anon_sym_thin"
  "\<not> external_terminal anon_sym_trait"
  "\<not> external_terminal anon_sym_try"
  "\<not> external_terminal anon_sym_type"
  "\<not> external_terminal anon_sym_unified"
  "\<not> external_terminal anon_sym_var"
  "\<not> external_terminal anon_sym_where"
  "\<not> external_terminal anon_sym_while"
  "\<not> external_terminal anon_sym_with"
  "\<not> external_terminal anon_sym_yield"
  "\<not> external_terminal aux_sym_decorated_definition_repeat1"
  "\<not> external_terminal aux_sym_module_repeat1"
  "external_terminal sym__dedent"
  "external_terminal sym__indent"
  "\<not> external_terminal sym__intersection_operand"
  "external_terminal sym__mlir_backtick"
  "external_terminal sym__mlir_ident"
  "external_terminal sym__mlir_number"
  "\<not> external_terminal sym__named_expression_lhs"
  "external_terminal sym__newline"
  "\<not> external_terminal sym__simple_statements"
  "\<not> external_terminal sym__statement"
  "external_terminal sym__string_content"
  "\<not> external_terminal sym_as_pattern"
  "\<not> external_terminal sym_assert_statement"
  "\<not> external_terminal sym_assignment"
  "\<not> external_terminal sym_attribute"
  "\<not> external_terminal sym_augmented_assignment"
  "\<not> external_terminal sym_await"
  "\<not> external_terminal sym_binary_operator"
  "\<not> external_terminal sym_block"
  "\<not> external_terminal sym_boolean_operator"
  "\<not> external_terminal sym_break_statement"
  "\<not> external_terminal sym_call"
  "\<not> external_terminal sym_called_type"
  "\<not> external_terminal sym_chevron"
  "\<not> external_terminal sym_class_definition"
  "external_terminal sym_comment"
  "\<not> external_terminal sym_comparison_operator"
  "\<not> external_terminal sym_comptime_assert_statement"
  "\<not> external_terminal sym_comptime_expression"
  "\<not> external_terminal sym_comptime_statement"
  "\<not> external_terminal sym_concatenated_string"
  "\<not> external_terminal sym_conditional_expression"
  "\<not> external_terminal sym_constrained_type"
  "\<not> external_terminal sym_continue_statement"
  "\<not> external_terminal sym_decorated_definition"
  "\<not> external_terminal sym_decorator"
  "\<not> external_terminal sym_delete_statement"
  "\<not> external_terminal sym_dictionary"
  "\<not> external_terminal sym_dictionary_comprehension"
  "\<not> external_terminal sym_ellipsis"
  "external_terminal sym_escape_interpolation"
  "\<not> external_terminal sym_escape_sequence"
  "\<not> external_terminal sym_exec_statement"
  "\<not> external_terminal sym_expression"
  "\<not> external_terminal sym_expression_statement"
  "\<not> external_terminal sym_extension_definition"
  "\<not> external_terminal sym_false"
  "\<not> external_terminal sym_float"
  "\<not> external_terminal sym_for_statement"
  "\<not> external_terminal sym_function_definition"
  "\<not> external_terminal sym_function_type"
  "\<not> external_terminal sym_future_import_statement"
  "\<not> external_terminal sym_generator_expression"
  "\<not> external_terminal sym_generic_type"
  "\<not> external_terminal sym_global_statement"
  "\<not> external_terminal sym_identifier"
  "\<not> external_terminal sym_if_statement"
  "\<not> external_terminal sym_import_from_statement"
  "\<not> external_terminal sym_import_statement"
  "\<not> external_terminal sym_integer"
  "\<not> external_terminal sym_intersection_type"
  "\<not> external_terminal sym_lambda"
  "\<not> external_terminal sym_line_continuation"
  "\<not> external_terminal sym_list"
  "\<not> external_terminal sym_list_comprehension"
  "\<not> external_terminal sym_list_pattern"
  "\<not> external_terminal sym_list_splat_pattern"
  "\<not> external_terminal sym_match_statement"
  "\<not> external_terminal sym_member_type"
  "external_terminal sym_mlir_punctuation"
  "\<not> external_terminal sym_mlir_region"
  "\<not> external_terminal sym_mlir_type"
  "\<not> external_terminal sym_module"
  "\<not> external_terminal sym_named_expression"
  "\<not> external_terminal sym_none"
  "\<not> external_terminal sym_nonlocal_statement"
  "\<not> external_terminal sym_not_operator"
  "\<not> external_terminal sym_parameterized_alias_statement"
  "\<not> external_terminal sym_parenthesized_expression"
  "\<not> external_terminal sym_pass_statement"
  "\<not> external_terminal sym_pattern"
  "\<not> external_terminal sym_pattern_list"
  "\<not> external_terminal sym_primary_expression"
  "\<not> external_terminal sym_print_statement"
  "\<not> external_terminal sym_raise_statement"
  "\<not> external_terminal sym_return_statement"
  "\<not> external_terminal sym_set"
  "\<not> external_terminal sym_set_comprehension"
  "\<not> external_terminal sym_splat_type"
  "\<not> external_terminal sym_string"
  "external_terminal sym_string_end"
  "external_terminal sym_string_start"
  "\<not> external_terminal sym_struct_literal"
  "\<not> external_terminal sym_subscript"
  "\<not> external_terminal sym_trait_definition"
  "\<not> external_terminal sym_transfer_expression"
  "\<not> external_terminal sym_true"
  "\<not> external_terminal sym_try_statement"
  "\<not> external_terminal sym_tuple"
  "\<not> external_terminal sym_tuple_expression"
  "\<not> external_terminal sym_tuple_pattern"
  "\<not> external_terminal sym_type"
  "\<not> external_terminal sym_type_alias_statement"
  "\<not> external_terminal sym_type_conversion"
  "\<not> external_terminal sym_type_parameter"
  "\<not> external_terminal sym_unary_operator"
  "\<not> external_terminal sym_union_type"
  "\<not> external_terminal sym_while_statement"
  "\<not> external_terminal sym_with_statement"
  "\<not> external_terminal sym_yield"
  "\<not> external_terminal ts_builtin_sym_end"
  unfolding external_terminal_numbers by (simp_all add: symbol_number_defs)

lemma lexable_0: "lexable 0 a"
  by (simp add: lexable_def)

lemma lexable_external:
  "lexable q sym__newline"
  "lexable q sym__indent"
  "lexable q sym__dedent"
  "lexable q sym_string_start"
  "lexable q sym__string_content"
  "lexable q sym_escape_interpolation"
  "lexable q sym_string_end"
  "lexable q sym_comment"
  "lexable q anon_sym_RBRACK"
  "lexable q anon_sym_RPAREN"
  "lexable q anon_sym_RBRACE"
  "lexable q anon_sym_except"
  "lexable q sym__mlir_backtick"
  "lexable q sym__mlir_ident"
  "lexable q sym__mlir_number"
  "lexable q sym_mlir_punctuation"
  unfolding lexable_def by simp_all

lemma lexable_keyword: "list_all (\<lambda>(w, a). lexable 4 a \<and> lexable 5 a \<and> lexable 53 a) keyword_list"
  by (force simp: list_all_iff lexable_def word_start_states_def)

lemma lexable_scans: "scans_as q w a \<Longrightarrow> lexable q a"
  by (auto simp: lexable_def)

lemma lexable_identifier:
  "lexable 4 sym_identifier"
  "lexable 5 sym_identifier"
  "lexable 53 sym_identifier"
  by (rule lexable_scans, rule identifier_scans, simp add: word_start_states_def)+

lemmas lexable_facts = lexable_0 lexable_identifier lexable_external
  lexable_keyword [unfolded keyword_list_def list.pred_inject prod.case]
  scans_in_4 [THEN lexable_scans] scans_in_5 [THEN lexable_scans] scans_in_53 [THEN lexable_scans]

lemma valid_terminals_1: "valid_terminals 1 = [
    anon_sym_RPAREN, anon_sym_except, anon_sym_RBRACK, anon_sym_RBRACE, sym_comment,
    sym__newline, sym__indent, sym__dedent, sym_string_start, sym__string_content,
    sym_escape_interpolation, sym_string_end, sym__mlir_backtick, sym__mlir_ident,
    sym__mlir_number, sym_mlir_punctuation]"
  by code_simp

lemma valid_terminals_2: "valid_terminals 2 = [
    sym_comment, sym_string_start]"
  by code_simp

lemma valid_terminals_3: "valid_terminals 3 = [
    sym_comment, sym__dedent, sym_string_start]"
  by code_simp

lemma valid_terminals_4: "valid_terminals 4 = [
    sym_comment, sym__newline, sym__indent, sym_string_start]"
  by code_simp

lemma valid_terminals_5: "valid_terminals 5 = [
    sym_comment, sym__newline, sym_string_start]"
  by code_simp

section \<open>Rows\<close>

text \<open>Every entry of a row fits, and the external tokens for which it has an action are those of the
  external lexical state.\<close>

definition row_fits :: "nat \<Rightarrow> nat \<Rightarrow> (nat \<times> nat) list \<Rightarrow> bool" where
  "row_fits q e row \<longleftrightarrow> list_all (case_prod (entry_fits q)) row \<and>
     filter external_terminal (map fst row) = valid_terminals e"

text \<open>The check in one pass over the row: it takes the external tokens off the list of the lexical state.\<close>

definition row_checks :: "nat \<Rightarrow> nat list \<Rightarrow> (nat \<times> nat) list \<Rightarrow> bool" where
  "row_checks q es row \<longleftrightarrow> list_all (case_prod (entry_fits q)) row \<and>
     filter external_terminal (map fst row) = es"

lemma row_checks_simps:
  "row_checks q [] []"
  "external_terminal x \<Longrightarrow> entry_fits q x v \<Longrightarrow> row_checks q (x # es) ((x, v) # row) = row_checks q es row"
  "\<not> external_terminal x \<Longrightarrow> entry_fits q x v \<Longrightarrow> row_checks q es ((x, v) # row) = row_checks q es row"
  by (simp_all add: row_checks_def)

lemma row_fits_checks: "row_fits q e row = row_checks q (valid_terminals e) row"
  by (simp add: row_fits_def row_checks_def)

lemmas table_row_check = row_fits_checks row_checks_simps terminal_entries nonterminal_entries lexable_facts action_groups_0 action_groups_1 action_groups_2 action_groups_3 action_groups_4 action_groups_5 valid_terminals_1 valid_terminals_2 valid_terminals_3 valid_terminals_4 valid_terminals_5

definition mode_fits :: "TSLexerMode \<Rightarrow> (nat \<times> nat) list \<Rightarrow> bool" where
  "mode_fits m row \<longleftrightarrow> row_fits (lex_state m) (external_lex_state m) row"

lemma fits_mode: "mode_fits (lexer_mode q e c) = row_fits q e"
  by (simp add: fun_eq_iff mode_fits_def lexer_mode_def)

end
