(* ===== verification/Mojo_Parse_Row_Proofs_0.thy ===== *)
theory Mojo_Parse_Row_Proofs_0
  imports Mojo_Parse_Row_Checks Mojo_Parse_Rows_0
begin

text \<open>
  The rows of the parse states from 0 to 149 fit, checked row by row.
\<close>

section \<open>Rows\<close>

declare table_row_check [simp] One_nat_def [simp del]

lemma parse_table_0_fits: "row_fits 0 1 parse_table_0"
  unfolding parse_table_0_def by simp

lemma parse_table_1_fits: "row_fits 53 2 parse_table_1"
  unfolding parse_table_1_def by simp

lemma parse_table_2_fits: "row_fits 53 3 parse_table_2"
  unfolding parse_table_2_def by simp

lemma parse_table_3_fits: "row_fits 53 3 parse_table_3"
  unfolding parse_table_3_def by simp

lemma parse_table_4_fits: "row_fits 53 3 parse_table_4"
  unfolding parse_table_4_def by simp

lemma parse_table_5_fits: "row_fits 53 3 parse_table_5"
  unfolding parse_table_5_def by simp

lemma parse_table_6_fits: "row_fits 53 3 parse_table_6"
  unfolding parse_table_6_def by simp

lemma parse_table_7_fits: "row_fits 53 3 parse_table_7"
  unfolding parse_table_7_def by simp

lemma parse_table_8_fits: "row_fits 53 3 parse_table_8"
  unfolding parse_table_8_def by simp

lemma parse_table_9_fits: "row_fits 53 3 parse_table_9"
  unfolding parse_table_9_def by simp

lemma parse_table_10_fits: "row_fits 53 3 parse_table_10"
  unfolding parse_table_10_def by simp

lemma parse_table_11_fits: "row_fits 53 3 parse_table_11"
  unfolding parse_table_11_def by simp

lemma parse_table_12_fits: "row_fits 53 3 parse_table_12"
  unfolding parse_table_12_def by simp

lemma parse_table_13_fits: "row_fits 53 3 parse_table_13"
  unfolding parse_table_13_def by simp

lemma parse_table_14_fits: "row_fits 53 3 parse_table_14"
  unfolding parse_table_14_def by simp

lemma parse_table_15_fits: "row_fits 53 3 parse_table_15"
  unfolding parse_table_15_def by simp

lemma parse_table_16_fits: "row_fits 53 3 parse_table_16"
  unfolding parse_table_16_def by simp

lemma parse_table_17_fits: "row_fits 53 3 parse_table_17"
  unfolding parse_table_17_def by simp

lemma parse_table_18_fits: "row_fits 53 3 parse_table_18"
  unfolding parse_table_18_def by simp

lemma parse_table_19_fits: "row_fits 53 3 parse_table_19"
  unfolding parse_table_19_def by simp

lemma parse_table_20_fits: "row_fits 53 3 parse_table_20"
  unfolding parse_table_20_def by simp

lemma parse_table_21_fits: "row_fits 53 3 parse_table_21"
  unfolding parse_table_21_def by simp

lemma parse_table_22_fits: "row_fits 53 3 parse_table_22"
  unfolding parse_table_22_def by simp

lemma parse_table_23_fits: "row_fits 53 3 parse_table_23"
  unfolding parse_table_23_def by simp

lemma parse_table_24_fits: "row_fits 53 3 parse_table_24"
  unfolding parse_table_24_def by simp

lemma parse_table_25_fits: "row_fits 53 3 parse_table_25"
  unfolding parse_table_25_def by simp

lemma parse_table_26_fits: "row_fits 53 3 parse_table_26"
  unfolding parse_table_26_def by simp

lemma parse_table_27_fits: "row_fits 53 3 parse_table_27"
  unfolding parse_table_27_def by simp

lemma parse_table_28_fits: "row_fits 53 3 parse_table_28"
  unfolding parse_table_28_def by simp

lemma parse_table_29_fits: "row_fits 53 3 parse_table_29"
  unfolding parse_table_29_def by simp

lemma parse_table_30_fits: "row_fits 53 3 parse_table_30"
  unfolding parse_table_30_def by simp

lemma parse_table_31_fits: "row_fits 53 3 parse_table_31"
  unfolding parse_table_31_def by simp

lemma parse_table_32_fits: "row_fits 53 3 parse_table_32"
  unfolding parse_table_32_def by simp

lemma parse_table_33_fits: "row_fits 53 3 parse_table_33"
  unfolding parse_table_33_def by simp

lemma parse_table_34_fits: "row_fits 53 3 parse_table_34"
  unfolding parse_table_34_def by simp

lemma parse_table_35_fits: "row_fits 53 3 parse_table_35"
  unfolding parse_table_35_def by simp

lemma parse_table_36_fits: "row_fits 53 3 parse_table_36"
  unfolding parse_table_36_def by simp

lemma parse_table_37_fits: "row_fits 53 3 parse_table_37"
  unfolding parse_table_37_def by simp

lemma parse_table_38_fits: "row_fits 53 3 parse_table_38"
  unfolding parse_table_38_def by simp

lemma parse_table_39_fits: "row_fits 53 3 parse_table_39"
  unfolding parse_table_39_def by simp

lemma parse_table_40_fits: "row_fits 53 3 parse_table_40"
  unfolding parse_table_40_def by simp

lemma parse_table_41_fits: "row_fits 53 3 parse_table_41"
  unfolding parse_table_41_def by simp

lemma parse_table_42_fits: "row_fits 53 3 parse_table_42"
  unfolding parse_table_42_def by simp

lemma parse_table_43_fits: "row_fits 53 3 parse_table_43"
  unfolding parse_table_43_def by simp

lemma parse_table_44_fits: "row_fits 53 3 parse_table_44"
  unfolding parse_table_44_def by simp

lemma parse_table_45_fits: "row_fits 53 3 parse_table_45"
  unfolding parse_table_45_def by simp

lemma parse_table_46_fits: "row_fits 53 3 parse_table_46"
  unfolding parse_table_46_def by simp

lemma parse_table_47_fits: "row_fits 53 3 parse_table_47"
  unfolding parse_table_47_def by simp

lemma parse_table_48_fits: "row_fits 53 3 parse_table_48"
  unfolding parse_table_48_def by simp

lemma parse_table_49_fits: "row_fits 53 3 parse_table_49"
  unfolding parse_table_49_def by simp

lemma parse_table_50_fits: "row_fits 53 3 parse_table_50"
  unfolding parse_table_50_def by simp

lemma parse_table_51_fits: "row_fits 53 3 parse_table_51"
  unfolding parse_table_51_def by simp

lemma parse_table_52_fits: "row_fits 53 3 parse_table_52"
  unfolding parse_table_52_def by simp

lemma parse_table_53_fits: "row_fits 53 3 parse_table_53"
  unfolding parse_table_53_def by simp

lemma parse_table_54_fits: "row_fits 53 3 parse_table_54"
  unfolding parse_table_54_def by simp

lemma parse_table_55_fits: "row_fits 53 3 parse_table_55"
  unfolding parse_table_55_def by simp

lemma parse_table_56_fits: "row_fits 53 3 parse_table_56"
  unfolding parse_table_56_def by simp

lemma parse_table_57_fits: "row_fits 53 3 parse_table_57"
  unfolding parse_table_57_def by simp

lemma parse_table_58_fits: "row_fits 53 3 parse_table_58"
  unfolding parse_table_58_def by simp

lemma parse_table_59_fits: "row_fits 53 3 parse_table_59"
  unfolding parse_table_59_def by simp

lemma parse_table_60_fits: "row_fits 53 3 parse_table_60"
  unfolding parse_table_60_def by simp

lemma parse_table_61_fits: "row_fits 53 3 parse_table_61"
  unfolding parse_table_61_def by simp

lemma parse_table_62_fits: "row_fits 53 3 parse_table_62"
  unfolding parse_table_62_def by simp

lemma parse_table_63_fits: "row_fits 53 3 parse_table_63"
  unfolding parse_table_63_def by simp

lemma parse_table_64_fits: "row_fits 53 3 parse_table_64"
  unfolding parse_table_64_def by simp

lemma parse_table_65_fits: "row_fits 53 3 parse_table_65"
  unfolding parse_table_65_def by simp

lemma parse_table_66_fits: "row_fits 53 3 parse_table_66"
  unfolding parse_table_66_def by simp

lemma parse_table_67_fits: "row_fits 53 3 parse_table_67"
  unfolding parse_table_67_def by simp

lemma parse_table_68_fits: "row_fits 53 3 parse_table_68"
  unfolding parse_table_68_def by simp

lemma parse_table_69_fits: "row_fits 53 3 parse_table_69"
  unfolding parse_table_69_def by simp

lemma parse_table_70_fits: "row_fits 53 3 parse_table_70"
  unfolding parse_table_70_def by simp

lemma parse_table_71_fits: "row_fits 53 3 parse_table_71"
  unfolding parse_table_71_def by simp

lemma parse_table_72_fits: "row_fits 53 3 parse_table_72"
  unfolding parse_table_72_def by simp

lemma parse_table_73_fits: "row_fits 53 3 parse_table_73"
  unfolding parse_table_73_def by simp

lemma parse_table_74_fits: "row_fits 53 3 parse_table_74"
  unfolding parse_table_74_def by simp

lemma parse_table_75_fits: "row_fits 53 3 parse_table_75"
  unfolding parse_table_75_def by simp

lemma parse_table_76_fits: "row_fits 53 3 parse_table_76"
  unfolding parse_table_76_def by simp

lemma parse_table_77_fits: "row_fits 53 3 parse_table_77"
  unfolding parse_table_77_def by simp

lemma parse_table_78_fits: "row_fits 53 3 parse_table_78"
  unfolding parse_table_78_def by simp

lemma parse_table_79_fits: "row_fits 53 3 parse_table_79"
  unfolding parse_table_79_def by simp

lemma parse_table_80_fits: "row_fits 53 3 parse_table_80"
  unfolding parse_table_80_def by simp

lemma parse_table_81_fits: "row_fits 53 3 parse_table_81"
  unfolding parse_table_81_def by simp

lemma parse_table_82_fits: "row_fits 53 3 parse_table_82"
  unfolding parse_table_82_def by simp

lemma parse_table_83_fits: "row_fits 53 3 parse_table_83"
  unfolding parse_table_83_def by simp

lemma parse_table_84_fits: "row_fits 53 3 parse_table_84"
  unfolding parse_table_84_def by simp

lemma parse_table_85_fits: "row_fits 53 3 parse_table_85"
  unfolding parse_table_85_def by simp

lemma parse_table_86_fits: "row_fits 53 3 parse_table_86"
  unfolding parse_table_86_def by simp

lemma parse_table_87_fits: "row_fits 53 3 parse_table_87"
  unfolding parse_table_87_def by simp

lemma parse_table_88_fits: "row_fits 53 3 parse_table_88"
  unfolding parse_table_88_def by simp

lemma parse_table_89_fits: "row_fits 53 3 parse_table_89"
  unfolding parse_table_89_def by simp

lemma parse_table_90_fits: "row_fits 53 3 parse_table_90"
  unfolding parse_table_90_def by simp

lemma parse_table_91_fits: "row_fits 53 3 parse_table_91"
  unfolding parse_table_91_def by simp

lemma parse_table_92_fits: "row_fits 53 3 parse_table_92"
  unfolding parse_table_92_def by simp

lemma parse_table_93_fits: "row_fits 53 3 parse_table_93"
  unfolding parse_table_93_def by simp

lemma parse_table_94_fits: "row_fits 53 3 parse_table_94"
  unfolding parse_table_94_def by simp

lemma parse_table_95_fits: "row_fits 53 3 parse_table_95"
  unfolding parse_table_95_def by simp

lemma parse_table_96_fits: "row_fits 53 3 parse_table_96"
  unfolding parse_table_96_def by simp

lemma parse_table_97_fits: "row_fits 53 3 parse_table_97"
  unfolding parse_table_97_def by simp

lemma parse_table_98_fits: "row_fits 53 3 parse_table_98"
  unfolding parse_table_98_def by simp

lemma parse_table_99_fits: "row_fits 53 3 parse_table_99"
  unfolding parse_table_99_def by simp

lemma parse_table_100_fits: "row_fits 53 3 parse_table_100"
  unfolding parse_table_100_def by simp

lemma parse_table_101_fits: "row_fits 53 3 parse_table_101"
  unfolding parse_table_101_def by simp

lemma parse_table_102_fits: "row_fits 53 3 parse_table_102"
  unfolding parse_table_102_def by simp

lemma parse_table_103_fits: "row_fits 53 3 parse_table_103"
  unfolding parse_table_103_def by simp

lemma parse_table_104_fits: "row_fits 53 3 parse_table_104"
  unfolding parse_table_104_def by simp

lemma parse_table_105_fits: "row_fits 53 3 parse_table_105"
  unfolding parse_table_105_def by simp

lemma parse_table_106_fits: "row_fits 53 3 parse_table_106"
  unfolding parse_table_106_def by simp

lemma parse_table_107_fits: "row_fits 53 3 parse_table_107"
  unfolding parse_table_107_def by simp

lemma parse_table_108_fits: "row_fits 53 3 parse_table_108"
  unfolding parse_table_108_def by simp

lemma parse_table_109_fits: "row_fits 53 3 parse_table_109"
  unfolding parse_table_109_def by simp

lemma parse_table_110_fits: "row_fits 53 3 parse_table_110"
  unfolding parse_table_110_def by simp

lemma parse_table_111_fits: "row_fits 53 3 parse_table_111"
  unfolding parse_table_111_def by simp

lemma parse_table_112_fits: "row_fits 53 3 parse_table_112"
  unfolding parse_table_112_def by simp

lemma parse_table_113_fits: "row_fits 53 3 parse_table_113"
  unfolding parse_table_113_def by simp

lemma parse_table_114_fits: "row_fits 53 3 parse_table_114"
  unfolding parse_table_114_def by simp

lemma parse_table_115_fits: "row_fits 53 3 parse_table_115"
  unfolding parse_table_115_def by simp

lemma parse_table_116_fits: "row_fits 53 3 parse_table_116"
  unfolding parse_table_116_def by simp

lemma parse_table_117_fits: "row_fits 53 3 parse_table_117"
  unfolding parse_table_117_def by simp

lemma parse_table_118_fits: "row_fits 53 3 parse_table_118"
  unfolding parse_table_118_def by simp

lemma parse_table_119_fits: "row_fits 53 3 parse_table_119"
  unfolding parse_table_119_def by simp

lemma parse_table_120_fits: "row_fits 53 3 parse_table_120"
  unfolding parse_table_120_def by simp

lemma parse_table_121_fits: "row_fits 53 3 parse_table_121"
  unfolding parse_table_121_def by simp

lemma parse_table_122_fits: "row_fits 53 3 parse_table_122"
  unfolding parse_table_122_def by simp

lemma parse_table_123_fits: "row_fits 53 3 parse_table_123"
  unfolding parse_table_123_def by simp

lemma parse_table_124_fits: "row_fits 53 3 parse_table_124"
  unfolding parse_table_124_def by simp

lemma parse_table_125_fits: "row_fits 53 3 parse_table_125"
  unfolding parse_table_125_def by simp

lemma parse_table_126_fits: "row_fits 53 3 parse_table_126"
  unfolding parse_table_126_def by simp

lemma parse_table_127_fits: "row_fits 53 3 parse_table_127"
  unfolding parse_table_127_def by simp

lemma parse_table_128_fits: "row_fits 53 3 parse_table_128"
  unfolding parse_table_128_def by simp

lemma parse_table_129_fits: "row_fits 53 3 parse_table_129"
  unfolding parse_table_129_def by simp

lemma parse_table_130_fits: "row_fits 53 3 parse_table_130"
  unfolding parse_table_130_def by simp

lemma parse_table_131_fits: "row_fits 53 3 parse_table_131"
  unfolding parse_table_131_def by simp

lemma parse_table_132_fits: "row_fits 53 3 parse_table_132"
  unfolding parse_table_132_def by simp

lemma parse_table_133_fits: "row_fits 53 3 parse_table_133"
  unfolding parse_table_133_def by simp

lemma parse_table_134_fits: "row_fits 53 3 parse_table_134"
  unfolding parse_table_134_def by simp

lemma parse_table_135_fits: "row_fits 53 3 parse_table_135"
  unfolding parse_table_135_def by simp

lemma parse_table_136_fits: "row_fits 53 3 parse_table_136"
  unfolding parse_table_136_def by simp

lemma parse_table_137_fits: "row_fits 53 3 parse_table_137"
  unfolding parse_table_137_def by simp

lemma parse_table_138_fits: "row_fits 53 3 parse_table_138"
  unfolding parse_table_138_def by simp

lemma parse_table_139_fits: "row_fits 53 3 parse_table_139"
  unfolding parse_table_139_def by simp

lemma parse_table_140_fits: "row_fits 53 3 parse_table_140"
  unfolding parse_table_140_def by simp

lemma parse_table_141_fits: "row_fits 53 3 parse_table_141"
  unfolding parse_table_141_def by simp

lemma parse_table_142_fits: "row_fits 53 3 parse_table_142"
  unfolding parse_table_142_def by simp

lemma parse_table_143_fits: "row_fits 53 3 parse_table_143"
  unfolding parse_table_143_def by simp

lemma parse_table_144_fits: "row_fits 53 3 parse_table_144"
  unfolding parse_table_144_def by simp

lemma parse_table_145_fits: "row_fits 53 3 parse_table_145"
  unfolding parse_table_145_def by simp

lemma parse_table_146_fits: "row_fits 53 3 parse_table_146"
  unfolding parse_table_146_def by simp

lemma parse_table_147_fits: "row_fits 53 3 parse_table_147"
  unfolding parse_table_147_def by simp

lemma parse_table_148_fits: "row_fits 53 3 parse_table_148"
  unfolding parse_table_148_def by simp

lemma parse_table_149_fits: "row_fits 53 3 parse_table_149"
  unfolding parse_table_149_def by simp

declare table_row_check [simp del] One_nat_def [simp]

end
