(* ===== verification/Mojo_Parse_Row_Proofs_1.thy ===== *)
theory Mojo_Parse_Row_Proofs_1
  imports Mojo_Parse_Row_Checks Mojo_Parse_Rows_1
begin

text \<open>
  The rows of the parse states from 150 to 299 fit, checked row by row.
\<close>

section \<open>Rows\<close>

declare table_row_check [simp] One_nat_def [simp del]

lemma parse_table_150_fits: "row_fits 53 3 parse_table_150"
  unfolding parse_table_150_def by simp

lemma parse_table_151_fits: "row_fits 53 3 parse_table_151"
  unfolding parse_table_151_def by simp

lemma parse_table_152_fits: "row_fits 53 3 parse_table_152"
  unfolding parse_table_152_def by simp

lemma parse_table_153_fits: "row_fits 53 3 parse_table_153"
  unfolding parse_table_153_def by simp

lemma parse_table_154_fits: "row_fits 53 3 parse_table_154"
  unfolding parse_table_154_def by simp

lemma parse_table_155_fits: "row_fits 53 3 parse_table_155"
  unfolding parse_table_155_def by simp

lemma parse_table_156_fits: "row_fits 53 3 parse_table_156"
  unfolding parse_table_156_def by simp

lemma parse_table_157_fits: "row_fits 53 3 parse_table_157"
  unfolding parse_table_157_def by simp

lemma parse_table_158_fits: "row_fits 53 3 parse_table_158"
  unfolding parse_table_158_def by simp

lemma parse_table_159_fits: "row_fits 53 3 parse_table_159"
  unfolding parse_table_159_def by simp

lemma parse_table_160_fits: "row_fits 53 3 parse_table_160"
  unfolding parse_table_160_def by simp

lemma parse_table_161_fits: "row_fits 53 3 parse_table_161"
  unfolding parse_table_161_def by simp

lemma parse_table_162_fits: "row_fits 53 3 parse_table_162"
  unfolding parse_table_162_def by simp

lemma parse_table_163_fits: "row_fits 53 3 parse_table_163"
  unfolding parse_table_163_def by simp

lemma parse_table_164_fits: "row_fits 53 3 parse_table_164"
  unfolding parse_table_164_def by simp

lemma parse_table_165_fits: "row_fits 53 3 parse_table_165"
  unfolding parse_table_165_def by simp

lemma parse_table_166_fits: "row_fits 53 3 parse_table_166"
  unfolding parse_table_166_def by simp

lemma parse_table_167_fits: "row_fits 53 3 parse_table_167"
  unfolding parse_table_167_def by simp

lemma parse_table_168_fits: "row_fits 53 3 parse_table_168"
  unfolding parse_table_168_def by simp

lemma parse_table_169_fits: "row_fits 53 3 parse_table_169"
  unfolding parse_table_169_def by simp

lemma parse_table_170_fits: "row_fits 53 3 parse_table_170"
  unfolding parse_table_170_def by simp

lemma parse_table_171_fits: "row_fits 53 3 parse_table_171"
  unfolding parse_table_171_def by simp

lemma parse_table_172_fits: "row_fits 53 3 parse_table_172"
  unfolding parse_table_172_def by simp

lemma parse_table_173_fits: "row_fits 53 3 parse_table_173"
  unfolding parse_table_173_def by simp

lemma parse_table_174_fits: "row_fits 53 3 parse_table_174"
  unfolding parse_table_174_def by simp

lemma parse_table_175_fits: "row_fits 53 3 parse_table_175"
  unfolding parse_table_175_def by simp

lemma parse_table_176_fits: "row_fits 53 3 parse_table_176"
  unfolding parse_table_176_def by simp

lemma parse_table_177_fits: "row_fits 53 3 parse_table_177"
  unfolding parse_table_177_def by simp

lemma parse_table_178_fits: "row_fits 53 3 parse_table_178"
  unfolding parse_table_178_def by simp

lemma parse_table_179_fits: "row_fits 53 3 parse_table_179"
  unfolding parse_table_179_def by simp

lemma parse_table_180_fits: "row_fits 53 3 parse_table_180"
  unfolding parse_table_180_def by simp

lemma parse_table_181_fits: "row_fits 53 3 parse_table_181"
  unfolding parse_table_181_def by simp

lemma parse_table_182_fits: "row_fits 53 3 parse_table_182"
  unfolding parse_table_182_def by simp

lemma parse_table_183_fits: "row_fits 53 3 parse_table_183"
  unfolding parse_table_183_def by simp

lemma parse_table_184_fits: "row_fits 53 3 parse_table_184"
  unfolding parse_table_184_def by simp

lemma parse_table_185_fits: "row_fits 53 3 parse_table_185"
  unfolding parse_table_185_def by simp

lemma parse_table_186_fits: "row_fits 53 3 parse_table_186"
  unfolding parse_table_186_def by simp

lemma parse_table_187_fits: "row_fits 53 3 parse_table_187"
  unfolding parse_table_187_def by simp

lemma parse_table_188_fits: "row_fits 53 3 parse_table_188"
  unfolding parse_table_188_def by simp

lemma parse_table_189_fits: "row_fits 53 3 parse_table_189"
  unfolding parse_table_189_def by simp

lemma parse_table_190_fits: "row_fits 53 3 parse_table_190"
  unfolding parse_table_190_def by simp

lemma parse_table_191_fits: "row_fits 53 3 parse_table_191"
  unfolding parse_table_191_def by simp

lemma parse_table_192_fits: "row_fits 53 3 parse_table_192"
  unfolding parse_table_192_def by simp

lemma parse_table_193_fits: "row_fits 53 3 parse_table_193"
  unfolding parse_table_193_def by simp

lemma parse_table_194_fits: "row_fits 53 3 parse_table_194"
  unfolding parse_table_194_def by simp

lemma parse_table_195_fits: "row_fits 53 3 parse_table_195"
  unfolding parse_table_195_def by simp

lemma parse_table_196_fits: "row_fits 53 3 parse_table_196"
  unfolding parse_table_196_def by simp

lemma parse_table_197_fits: "row_fits 53 3 parse_table_197"
  unfolding parse_table_197_def by simp

lemma parse_table_198_fits: "row_fits 53 3 parse_table_198"
  unfolding parse_table_198_def by simp

lemma parse_table_199_fits: "row_fits 53 3 parse_table_199"
  unfolding parse_table_199_def by simp

lemma parse_table_200_fits: "row_fits 53 3 parse_table_200"
  unfolding parse_table_200_def by simp

lemma parse_table_201_fits: "row_fits 53 3 parse_table_201"
  unfolding parse_table_201_def by simp

lemma parse_table_202_fits: "row_fits 53 3 parse_table_202"
  unfolding parse_table_202_def by simp

lemma parse_table_203_fits: "row_fits 53 3 parse_table_203"
  unfolding parse_table_203_def by simp

lemma parse_table_204_fits: "row_fits 53 3 parse_table_204"
  unfolding parse_table_204_def by simp

lemma parse_table_205_fits: "row_fits 53 3 parse_table_205"
  unfolding parse_table_205_def by simp

lemma parse_table_206_fits: "row_fits 53 3 parse_table_206"
  unfolding parse_table_206_def by simp

lemma parse_table_207_fits: "row_fits 53 3 parse_table_207"
  unfolding parse_table_207_def by simp

lemma parse_table_208_fits: "row_fits 53 3 parse_table_208"
  unfolding parse_table_208_def by simp

lemma parse_table_209_fits: "row_fits 53 3 parse_table_209"
  unfolding parse_table_209_def by simp

lemma parse_table_210_fits: "row_fits 53 3 parse_table_210"
  unfolding parse_table_210_def by simp

lemma parse_table_211_fits: "row_fits 53 3 parse_table_211"
  unfolding parse_table_211_def by simp

lemma parse_table_212_fits: "row_fits 53 3 parse_table_212"
  unfolding parse_table_212_def by simp

lemma parse_table_213_fits: "row_fits 53 3 parse_table_213"
  unfolding parse_table_213_def by simp

lemma parse_table_214_fits: "row_fits 53 3 parse_table_214"
  unfolding parse_table_214_def by simp

lemma parse_table_215_fits: "row_fits 53 3 parse_table_215"
  unfolding parse_table_215_def by simp

lemma parse_table_216_fits: "row_fits 53 3 parse_table_216"
  unfolding parse_table_216_def by simp

lemma parse_table_217_fits: "row_fits 53 3 parse_table_217"
  unfolding parse_table_217_def by simp

lemma parse_table_218_fits: "row_fits 53 3 parse_table_218"
  unfolding parse_table_218_def by simp

lemma parse_table_219_fits: "row_fits 53 3 parse_table_219"
  unfolding parse_table_219_def by simp

lemma parse_table_220_fits: "row_fits 53 3 parse_table_220"
  unfolding parse_table_220_def by simp

lemma parse_table_221_fits: "row_fits 53 3 parse_table_221"
  unfolding parse_table_221_def by simp

lemma parse_table_222_fits: "row_fits 53 3 parse_table_222"
  unfolding parse_table_222_def by simp

lemma parse_table_223_fits: "row_fits 53 3 parse_table_223"
  unfolding parse_table_223_def by simp

lemma parse_table_224_fits: "row_fits 53 3 parse_table_224"
  unfolding parse_table_224_def by simp

lemma parse_table_225_fits: "row_fits 53 3 parse_table_225"
  unfolding parse_table_225_def by simp

lemma parse_table_226_fits: "row_fits 53 3 parse_table_226"
  unfolding parse_table_226_def by simp

lemma parse_table_227_fits: "row_fits 53 3 parse_table_227"
  unfolding parse_table_227_def by simp

lemma parse_table_228_fits: "row_fits 53 3 parse_table_228"
  unfolding parse_table_228_def by simp

lemma parse_table_229_fits: "row_fits 53 3 parse_table_229"
  unfolding parse_table_229_def by simp

lemma parse_table_230_fits: "row_fits 53 3 parse_table_230"
  unfolding parse_table_230_def by simp

lemma parse_table_231_fits: "row_fits 53 3 parse_table_231"
  unfolding parse_table_231_def by simp

lemma parse_table_232_fits: "row_fits 53 3 parse_table_232"
  unfolding parse_table_232_def by simp

lemma parse_table_233_fits: "row_fits 53 3 parse_table_233"
  unfolding parse_table_233_def by simp

lemma parse_table_234_fits: "row_fits 53 3 parse_table_234"
  unfolding parse_table_234_def by simp

lemma parse_table_235_fits: "row_fits 53 3 parse_table_235"
  unfolding parse_table_235_def by simp

lemma parse_table_236_fits: "row_fits 53 3 parse_table_236"
  unfolding parse_table_236_def by simp

lemma parse_table_237_fits: "row_fits 53 3 parse_table_237"
  unfolding parse_table_237_def by simp

lemma parse_table_238_fits: "row_fits 53 3 parse_table_238"
  unfolding parse_table_238_def by simp

lemma parse_table_239_fits: "row_fits 53 3 parse_table_239"
  unfolding parse_table_239_def by simp

lemma parse_table_240_fits: "row_fits 53 3 parse_table_240"
  unfolding parse_table_240_def by simp

lemma parse_table_241_fits: "row_fits 53 3 parse_table_241"
  unfolding parse_table_241_def by simp

lemma parse_table_242_fits: "row_fits 53 3 parse_table_242"
  unfolding parse_table_242_def by simp

lemma parse_table_243_fits: "row_fits 53 3 parse_table_243"
  unfolding parse_table_243_def by simp

lemma parse_table_244_fits: "row_fits 53 3 parse_table_244"
  unfolding parse_table_244_def by simp

lemma parse_table_245_fits: "row_fits 53 3 parse_table_245"
  unfolding parse_table_245_def by simp

lemma parse_table_246_fits: "row_fits 53 3 parse_table_246"
  unfolding parse_table_246_def by simp

lemma parse_table_247_fits: "row_fits 53 3 parse_table_247"
  unfolding parse_table_247_def by simp

lemma parse_table_248_fits: "row_fits 53 3 parse_table_248"
  unfolding parse_table_248_def by simp

lemma parse_table_249_fits: "row_fits 53 3 parse_table_249"
  unfolding parse_table_249_def by simp

lemma parse_table_250_fits: "row_fits 53 3 parse_table_250"
  unfolding parse_table_250_def by simp

lemma parse_table_251_fits: "row_fits 53 3 parse_table_251"
  unfolding parse_table_251_def by simp

lemma parse_table_252_fits: "row_fits 53 3 parse_table_252"
  unfolding parse_table_252_def by simp

lemma parse_table_253_fits: "row_fits 53 3 parse_table_253"
  unfolding parse_table_253_def by simp

lemma parse_table_254_fits: "row_fits 53 3 parse_table_254"
  unfolding parse_table_254_def by simp

lemma parse_table_255_fits: "row_fits 53 3 parse_table_255"
  unfolding parse_table_255_def by simp

lemma parse_table_256_fits: "row_fits 53 3 parse_table_256"
  unfolding parse_table_256_def by simp

lemma parse_table_257_fits: "row_fits 53 3 parse_table_257"
  unfolding parse_table_257_def by simp

lemma parse_table_258_fits: "row_fits 53 3 parse_table_258"
  unfolding parse_table_258_def by simp

lemma parse_table_259_fits: "row_fits 53 3 parse_table_259"
  unfolding parse_table_259_def by simp

lemma parse_table_260_fits: "row_fits 53 3 parse_table_260"
  unfolding parse_table_260_def by simp

lemma parse_table_261_fits: "row_fits 53 3 parse_table_261"
  unfolding parse_table_261_def by simp

lemma parse_table_262_fits: "row_fits 53 3 parse_table_262"
  unfolding parse_table_262_def by simp

lemma parse_table_263_fits: "row_fits 53 3 parse_table_263"
  unfolding parse_table_263_def by simp

lemma parse_table_264_fits: "row_fits 53 3 parse_table_264"
  unfolding parse_table_264_def by simp

lemma parse_table_265_fits: "row_fits 53 3 parse_table_265"
  unfolding parse_table_265_def by simp

lemma parse_table_266_fits: "row_fits 53 3 parse_table_266"
  unfolding parse_table_266_def by simp

lemma parse_table_267_fits: "row_fits 53 3 parse_table_267"
  unfolding parse_table_267_def by simp

lemma parse_table_268_fits: "row_fits 53 3 parse_table_268"
  unfolding parse_table_268_def by simp

lemma parse_table_269_fits: "row_fits 53 3 parse_table_269"
  unfolding parse_table_269_def by simp

lemma parse_table_270_fits: "row_fits 53 3 parse_table_270"
  unfolding parse_table_270_def by simp

lemma parse_table_271_fits: "row_fits 53 3 parse_table_271"
  unfolding parse_table_271_def by simp

lemma parse_table_272_fits: "row_fits 53 3 parse_table_272"
  unfolding parse_table_272_def by simp

lemma parse_table_273_fits: "row_fits 53 3 parse_table_273"
  unfolding parse_table_273_def by simp

lemma parse_table_274_fits: "row_fits 53 3 parse_table_274"
  unfolding parse_table_274_def by simp

lemma parse_table_275_fits: "row_fits 53 3 parse_table_275"
  unfolding parse_table_275_def by simp

lemma parse_table_276_fits: "row_fits 53 3 parse_table_276"
  unfolding parse_table_276_def by simp

lemma parse_table_277_fits: "row_fits 53 3 parse_table_277"
  unfolding parse_table_277_def by simp

lemma parse_table_278_fits: "row_fits 53 3 parse_table_278"
  unfolding parse_table_278_def by simp

lemma parse_table_279_fits: "row_fits 53 3 parse_table_279"
  unfolding parse_table_279_def by simp

lemma parse_table_280_fits: "row_fits 53 3 parse_table_280"
  unfolding parse_table_280_def by simp

lemma parse_table_281_fits: "row_fits 53 3 parse_table_281"
  unfolding parse_table_281_def by simp

lemma parse_table_282_fits: "row_fits 53 3 parse_table_282"
  unfolding parse_table_282_def by simp

lemma parse_table_283_fits: "row_fits 53 3 parse_table_283"
  unfolding parse_table_283_def by simp

lemma parse_table_284_fits: "row_fits 53 3 parse_table_284"
  unfolding parse_table_284_def by simp

lemma parse_table_285_fits: "row_fits 53 3 parse_table_285"
  unfolding parse_table_285_def by simp

lemma parse_table_286_fits: "row_fits 53 3 parse_table_286"
  unfolding parse_table_286_def by simp

lemma parse_table_287_fits: "row_fits 53 3 parse_table_287"
  unfolding parse_table_287_def by simp

lemma parse_table_288_fits: "row_fits 53 3 parse_table_288"
  unfolding parse_table_288_def by simp

lemma parse_table_289_fits: "row_fits 53 3 parse_table_289"
  unfolding parse_table_289_def by simp

lemma parse_table_290_fits: "row_fits 53 3 parse_table_290"
  unfolding parse_table_290_def by simp

lemma parse_table_291_fits: "row_fits 53 3 parse_table_291"
  unfolding parse_table_291_def by simp

lemma parse_table_292_fits: "row_fits 53 3 parse_table_292"
  unfolding parse_table_292_def by simp

lemma parse_table_293_fits: "row_fits 53 3 parse_table_293"
  unfolding parse_table_293_def by simp

lemma parse_table_294_fits: "row_fits 53 3 parse_table_294"
  unfolding parse_table_294_def by simp

lemma parse_table_295_fits: "row_fits 53 3 parse_table_295"
  unfolding parse_table_295_def by simp

lemma parse_table_296_fits: "row_fits 53 3 parse_table_296"
  unfolding parse_table_296_def by simp

lemma parse_table_297_fits: "row_fits 53 3 parse_table_297"
  unfolding parse_table_297_def by simp

lemma parse_table_298_fits: "row_fits 53 3 parse_table_298"
  unfolding parse_table_298_def by simp

lemma parse_table_299_fits: "row_fits 53 3 parse_table_299"
  unfolding parse_table_299_def by simp

declare table_row_check [simp del] One_nat_def [simp]

end
