(* ===== verification/Mojo_Parse_Row_Proofs_2.thy ===== *)
theory Mojo_Parse_Row_Proofs_2
  imports Mojo_Parse_Row_Checks Mojo_Parse_Rows_2
begin

text \<open>
  The rows of the parse states from 300 to 449 fit, checked row by row.
\<close>

section \<open>Rows\<close>

declare table_row_check [simp] One_nat_def [simp del]

lemma parse_table_300_fits: "row_fits 53 3 parse_table_300"
  unfolding parse_table_300_def by simp

lemma parse_table_301_fits: "row_fits 53 3 parse_table_301"
  unfolding parse_table_301_def by simp

lemma parse_table_302_fits: "row_fits 53 3 parse_table_302"
  unfolding parse_table_302_def by simp

lemma parse_table_303_fits: "row_fits 53 3 parse_table_303"
  unfolding parse_table_303_def by simp

lemma parse_table_304_fits: "row_fits 53 3 parse_table_304"
  unfolding parse_table_304_def by simp

lemma parse_table_305_fits: "row_fits 53 3 parse_table_305"
  unfolding parse_table_305_def by simp

lemma parse_table_306_fits: "row_fits 53 3 parse_table_306"
  unfolding parse_table_306_def by simp

lemma parse_table_307_fits: "row_fits 53 3 parse_table_307"
  unfolding parse_table_307_def by simp

lemma parse_table_308_fits: "row_fits 53 3 parse_table_308"
  unfolding parse_table_308_def by simp

lemma parse_table_309_fits: "row_fits 53 3 parse_table_309"
  unfolding parse_table_309_def by simp

lemma parse_table_310_fits: "row_fits 53 3 parse_table_310"
  unfolding parse_table_310_def by simp

lemma parse_table_311_fits: "row_fits 53 3 parse_table_311"
  unfolding parse_table_311_def by simp

lemma parse_table_312_fits: "row_fits 53 3 parse_table_312"
  unfolding parse_table_312_def by simp

lemma parse_table_313_fits: "row_fits 53 3 parse_table_313"
  unfolding parse_table_313_def by simp

lemma parse_table_314_fits: "row_fits 53 3 parse_table_314"
  unfolding parse_table_314_def by simp

lemma parse_table_315_fits: "row_fits 53 3 parse_table_315"
  unfolding parse_table_315_def by simp

lemma parse_table_316_fits: "row_fits 53 3 parse_table_316"
  unfolding parse_table_316_def by simp

lemma parse_table_317_fits: "row_fits 53 3 parse_table_317"
  unfolding parse_table_317_def by simp

lemma parse_table_318_fits: "row_fits 53 3 parse_table_318"
  unfolding parse_table_318_def by simp

lemma parse_table_319_fits: "row_fits 53 3 parse_table_319"
  unfolding parse_table_319_def by simp

lemma parse_table_320_fits: "row_fits 53 3 parse_table_320"
  unfolding parse_table_320_def by simp

lemma parse_table_321_fits: "row_fits 53 3 parse_table_321"
  unfolding parse_table_321_def by simp

lemma parse_table_322_fits: "row_fits 53 3 parse_table_322"
  unfolding parse_table_322_def by simp

lemma parse_table_323_fits: "row_fits 53 3 parse_table_323"
  unfolding parse_table_323_def by simp

lemma parse_table_324_fits: "row_fits 53 3 parse_table_324"
  unfolding parse_table_324_def by simp

lemma parse_table_325_fits: "row_fits 53 3 parse_table_325"
  unfolding parse_table_325_def by simp

lemma parse_table_326_fits: "row_fits 53 3 parse_table_326"
  unfolding parse_table_326_def by simp

lemma parse_table_327_fits: "row_fits 53 3 parse_table_327"
  unfolding parse_table_327_def by simp

lemma parse_table_328_fits: "row_fits 53 3 parse_table_328"
  unfolding parse_table_328_def by simp

lemma parse_table_329_fits: "row_fits 53 3 parse_table_329"
  unfolding parse_table_329_def by simp

lemma parse_table_330_fits: "row_fits 53 3 parse_table_330"
  unfolding parse_table_330_def by simp

lemma parse_table_331_fits: "row_fits 53 3 parse_table_331"
  unfolding parse_table_331_def by simp

lemma parse_table_332_fits: "row_fits 53 3 parse_table_332"
  unfolding parse_table_332_def by simp

lemma parse_table_333_fits: "row_fits 53 3 parse_table_333"
  unfolding parse_table_333_def by simp

lemma parse_table_334_fits: "row_fits 53 3 parse_table_334"
  unfolding parse_table_334_def by simp

lemma parse_table_335_fits: "row_fits 53 3 parse_table_335"
  unfolding parse_table_335_def by simp

lemma parse_table_336_fits: "row_fits 53 3 parse_table_336"
  unfolding parse_table_336_def by simp

lemma parse_table_337_fits: "row_fits 53 3 parse_table_337"
  unfolding parse_table_337_def by simp

lemma parse_table_338_fits: "row_fits 53 3 parse_table_338"
  unfolding parse_table_338_def by simp

lemma parse_table_339_fits: "row_fits 53 3 parse_table_339"
  unfolding parse_table_339_def by simp

lemma parse_table_340_fits: "row_fits 53 3 parse_table_340"
  unfolding parse_table_340_def by simp

lemma parse_table_341_fits: "row_fits 53 3 parse_table_341"
  unfolding parse_table_341_def by simp

lemma parse_table_342_fits: "row_fits 53 3 parse_table_342"
  unfolding parse_table_342_def by simp

lemma parse_table_343_fits: "row_fits 53 3 parse_table_343"
  unfolding parse_table_343_def by simp

lemma parse_table_344_fits: "row_fits 53 3 parse_table_344"
  unfolding parse_table_344_def by simp

lemma parse_table_345_fits: "row_fits 53 3 parse_table_345"
  unfolding parse_table_345_def by simp

lemma parse_table_346_fits: "row_fits 53 3 parse_table_346"
  unfolding parse_table_346_def by simp

lemma parse_table_347_fits: "row_fits 53 3 parse_table_347"
  unfolding parse_table_347_def by simp

lemma parse_table_348_fits: "row_fits 53 3 parse_table_348"
  unfolding parse_table_348_def by simp

lemma parse_table_349_fits: "row_fits 53 3 parse_table_349"
  unfolding parse_table_349_def by simp

lemma parse_table_350_fits: "row_fits 53 3 parse_table_350"
  unfolding parse_table_350_def by simp

lemma parse_table_351_fits: "row_fits 53 3 parse_table_351"
  unfolding parse_table_351_def by simp

lemma parse_table_352_fits: "row_fits 53 3 parse_table_352"
  unfolding parse_table_352_def by simp

lemma parse_table_353_fits: "row_fits 53 3 parse_table_353"
  unfolding parse_table_353_def by simp

lemma parse_table_354_fits: "row_fits 53 3 parse_table_354"
  unfolding parse_table_354_def by simp

lemma parse_table_355_fits: "row_fits 53 3 parse_table_355"
  unfolding parse_table_355_def by simp

lemma parse_table_356_fits: "row_fits 53 3 parse_table_356"
  unfolding parse_table_356_def by simp

lemma parse_table_357_fits: "row_fits 53 3 parse_table_357"
  unfolding parse_table_357_def by simp

lemma parse_table_358_fits: "row_fits 53 3 parse_table_358"
  unfolding parse_table_358_def by simp

lemma parse_table_359_fits: "row_fits 53 3 parse_table_359"
  unfolding parse_table_359_def by simp

lemma parse_table_360_fits: "row_fits 53 3 parse_table_360"
  unfolding parse_table_360_def by simp

lemma parse_table_361_fits: "row_fits 53 3 parse_table_361"
  unfolding parse_table_361_def by simp

lemma parse_table_362_fits: "row_fits 53 3 parse_table_362"
  unfolding parse_table_362_def by simp

lemma parse_table_363_fits: "row_fits 53 3 parse_table_363"
  unfolding parse_table_363_def by simp

lemma parse_table_364_fits: "row_fits 53 3 parse_table_364"
  unfolding parse_table_364_def by simp

lemma parse_table_365_fits: "row_fits 53 3 parse_table_365"
  unfolding parse_table_365_def by simp

lemma parse_table_366_fits: "row_fits 53 3 parse_table_366"
  unfolding parse_table_366_def by simp

lemma parse_table_367_fits: "row_fits 53 3 parse_table_367"
  unfolding parse_table_367_def by simp

lemma parse_table_368_fits: "row_fits 53 3 parse_table_368"
  unfolding parse_table_368_def by simp

lemma parse_table_369_fits: "row_fits 53 3 parse_table_369"
  unfolding parse_table_369_def by simp

lemma parse_table_370_fits: "row_fits 53 3 parse_table_370"
  unfolding parse_table_370_def by simp

lemma parse_table_371_fits: "row_fits 53 3 parse_table_371"
  unfolding parse_table_371_def by simp

lemma parse_table_372_fits: "row_fits 53 3 parse_table_372"
  unfolding parse_table_372_def by simp

lemma parse_table_373_fits: "row_fits 53 3 parse_table_373"
  unfolding parse_table_373_def by simp

lemma parse_table_374_fits: "row_fits 53 3 parse_table_374"
  unfolding parse_table_374_def by simp

lemma parse_table_375_fits: "row_fits 53 3 parse_table_375"
  unfolding parse_table_375_def by simp

lemma parse_table_376_fits: "row_fits 53 3 parse_table_376"
  unfolding parse_table_376_def by simp

lemma parse_table_377_fits: "row_fits 53 3 parse_table_377"
  unfolding parse_table_377_def by simp

lemma parse_table_378_fits: "row_fits 53 3 parse_table_378"
  unfolding parse_table_378_def by simp

lemma parse_table_379_fits: "row_fits 53 3 parse_table_379"
  unfolding parse_table_379_def by simp

lemma parse_table_380_fits: "row_fits 53 3 parse_table_380"
  unfolding parse_table_380_def by simp

lemma parse_table_381_fits: "row_fits 53 3 parse_table_381"
  unfolding parse_table_381_def by simp

lemma parse_table_382_fits: "row_fits 53 3 parse_table_382"
  unfolding parse_table_382_def by simp

lemma parse_table_383_fits: "row_fits 53 3 parse_table_383"
  unfolding parse_table_383_def by simp

lemma parse_table_384_fits: "row_fits 53 3 parse_table_384"
  unfolding parse_table_384_def by simp

lemma parse_table_385_fits: "row_fits 53 3 parse_table_385"
  unfolding parse_table_385_def by simp

lemma parse_table_386_fits: "row_fits 53 3 parse_table_386"
  unfolding parse_table_386_def by simp

lemma parse_table_387_fits: "row_fits 53 3 parse_table_387"
  unfolding parse_table_387_def by simp

lemma parse_table_388_fits: "row_fits 53 3 parse_table_388"
  unfolding parse_table_388_def by simp

lemma parse_table_389_fits: "row_fits 53 3 parse_table_389"
  unfolding parse_table_389_def by simp

lemma parse_table_390_fits: "row_fits 53 3 parse_table_390"
  unfolding parse_table_390_def by simp

lemma parse_table_391_fits: "row_fits 53 3 parse_table_391"
  unfolding parse_table_391_def by simp

lemma parse_table_392_fits: "row_fits 53 3 parse_table_392"
  unfolding parse_table_392_def by simp

lemma parse_table_393_fits: "row_fits 53 3 parse_table_393"
  unfolding parse_table_393_def by simp

lemma parse_table_394_fits: "row_fits 53 3 parse_table_394"
  unfolding parse_table_394_def by simp

lemma parse_table_395_fits: "row_fits 53 3 parse_table_395"
  unfolding parse_table_395_def by simp

lemma parse_table_396_fits: "row_fits 53 3 parse_table_396"
  unfolding parse_table_396_def by simp

lemma parse_table_397_fits: "row_fits 53 3 parse_table_397"
  unfolding parse_table_397_def by simp

lemma parse_table_398_fits: "row_fits 53 3 parse_table_398"
  unfolding parse_table_398_def by simp

lemma parse_table_399_fits: "row_fits 53 3 parse_table_399"
  unfolding parse_table_399_def by simp

lemma parse_table_400_fits: "row_fits 53 3 parse_table_400"
  unfolding parse_table_400_def by simp

lemma parse_table_401_fits: "row_fits 53 3 parse_table_401"
  unfolding parse_table_401_def by simp

lemma parse_table_402_fits: "row_fits 53 3 parse_table_402"
  unfolding parse_table_402_def by simp

lemma parse_table_403_fits: "row_fits 53 3 parse_table_403"
  unfolding parse_table_403_def by simp

lemma parse_table_404_fits: "row_fits 53 3 parse_table_404"
  unfolding parse_table_404_def by simp

lemma parse_table_405_fits: "row_fits 53 3 parse_table_405"
  unfolding parse_table_405_def by simp

lemma parse_table_406_fits: "row_fits 53 3 parse_table_406"
  unfolding parse_table_406_def by simp

lemma parse_table_407_fits: "row_fits 53 3 parse_table_407"
  unfolding parse_table_407_def by simp

lemma parse_table_408_fits: "row_fits 53 3 parse_table_408"
  unfolding parse_table_408_def by simp

lemma parse_table_409_fits: "row_fits 53 3 parse_table_409"
  unfolding parse_table_409_def by simp

lemma parse_table_410_fits: "row_fits 53 3 parse_table_410"
  unfolding parse_table_410_def by simp

lemma parse_table_411_fits: "row_fits 53 3 parse_table_411"
  unfolding parse_table_411_def by simp

lemma parse_table_412_fits: "row_fits 53 3 parse_table_412"
  unfolding parse_table_412_def by simp

lemma parse_table_413_fits: "row_fits 53 3 parse_table_413"
  unfolding parse_table_413_def by simp

lemma parse_table_414_fits: "row_fits 53 3 parse_table_414"
  unfolding parse_table_414_def by simp

lemma parse_table_415_fits: "row_fits 53 3 parse_table_415"
  unfolding parse_table_415_def by simp

lemma parse_table_416_fits: "row_fits 53 3 parse_table_416"
  unfolding parse_table_416_def by simp

lemma parse_table_417_fits: "row_fits 53 3 parse_table_417"
  unfolding parse_table_417_def by simp

lemma parse_table_418_fits: "row_fits 53 3 parse_table_418"
  unfolding parse_table_418_def by simp

lemma parse_table_419_fits: "row_fits 53 3 parse_table_419"
  unfolding parse_table_419_def by simp

lemma parse_table_420_fits: "row_fits 53 3 parse_table_420"
  unfolding parse_table_420_def by simp

lemma parse_table_421_fits: "row_fits 53 3 parse_table_421"
  unfolding parse_table_421_def by simp

lemma parse_table_422_fits: "row_fits 53 3 parse_table_422"
  unfolding parse_table_422_def by simp

lemma parse_table_423_fits: "row_fits 53 3 parse_table_423"
  unfolding parse_table_423_def by simp

lemma parse_table_424_fits: "row_fits 53 3 parse_table_424"
  unfolding parse_table_424_def by simp

lemma parse_table_425_fits: "row_fits 53 3 parse_table_425"
  unfolding parse_table_425_def by simp

lemma parse_table_426_fits: "row_fits 53 3 parse_table_426"
  unfolding parse_table_426_def by simp

lemma parse_table_427_fits: "row_fits 53 3 parse_table_427"
  unfolding parse_table_427_def by simp

lemma parse_table_428_fits: "row_fits 53 3 parse_table_428"
  unfolding parse_table_428_def by simp

lemma parse_table_429_fits: "row_fits 53 3 parse_table_429"
  unfolding parse_table_429_def by simp

lemma parse_table_430_fits: "row_fits 53 3 parse_table_430"
  unfolding parse_table_430_def by simp

lemma parse_table_431_fits: "row_fits 53 3 parse_table_431"
  unfolding parse_table_431_def by simp

lemma parse_table_432_fits: "row_fits 53 3 parse_table_432"
  unfolding parse_table_432_def by simp

lemma parse_table_433_fits: "row_fits 53 3 parse_table_433"
  unfolding parse_table_433_def by simp

lemma parse_table_434_fits: "row_fits 53 3 parse_table_434"
  unfolding parse_table_434_def by simp

lemma parse_table_435_fits: "row_fits 53 3 parse_table_435"
  unfolding parse_table_435_def by simp

lemma parse_table_436_fits: "row_fits 53 3 parse_table_436"
  unfolding parse_table_436_def by simp

lemma parse_table_437_fits: "row_fits 53 3 parse_table_437"
  unfolding parse_table_437_def by simp

lemma parse_table_438_fits: "row_fits 53 3 parse_table_438"
  unfolding parse_table_438_def by simp

lemma parse_table_439_fits: "row_fits 53 3 parse_table_439"
  unfolding parse_table_439_def by simp

lemma parse_table_440_fits: "row_fits 53 3 parse_table_440"
  unfolding parse_table_440_def by simp

lemma parse_table_441_fits: "row_fits 53 3 parse_table_441"
  unfolding parse_table_441_def by simp

lemma parse_table_442_fits: "row_fits 53 3 parse_table_442"
  unfolding parse_table_442_def by simp

lemma parse_table_443_fits: "row_fits 53 3 parse_table_443"
  unfolding parse_table_443_def by simp

lemma parse_table_444_fits: "row_fits 53 3 parse_table_444"
  unfolding parse_table_444_def by simp

lemma parse_table_445_fits: "row_fits 53 3 parse_table_445"
  unfolding parse_table_445_def by simp

lemma parse_table_446_fits: "row_fits 53 3 parse_table_446"
  unfolding parse_table_446_def by simp

lemma parse_table_447_fits: "row_fits 53 3 parse_table_447"
  unfolding parse_table_447_def by simp

lemma parse_table_448_fits: "row_fits 53 3 parse_table_448"
  unfolding parse_table_448_def by simp

lemma parse_table_449_fits: "row_fits 53 3 parse_table_449"
  unfolding parse_table_449_def by simp

declare table_row_check [simp del] One_nat_def [simp]

end
