(* ===== verification/Mojo_Parse_Row_Proofs_3.thy ===== *)
theory Mojo_Parse_Row_Proofs_3
  imports Mojo_Parse_Row_Checks Mojo_Parse_Rows_3
begin

text \<open>
  The rows of the parse states from 450 to 599 fit, checked row by row.
\<close>

section \<open>Rows\<close>

declare table_row_check [simp] One_nat_def [simp del]

lemma parse_table_450_fits: "row_fits 53 3 parse_table_450"
  unfolding parse_table_450_def by simp

lemma parse_table_451_fits: "row_fits 53 3 parse_table_451"
  unfolding parse_table_451_def by simp

lemma parse_table_452_fits: "row_fits 53 3 parse_table_452"
  unfolding parse_table_452_def by simp

lemma parse_table_453_fits: "row_fits 53 3 parse_table_453"
  unfolding parse_table_453_def by simp

lemma parse_table_454_fits: "row_fits 53 3 parse_table_454"
  unfolding parse_table_454_def by simp

lemma parse_table_455_fits: "row_fits 53 3 parse_table_455"
  unfolding parse_table_455_def by simp

lemma parse_table_456_fits: "row_fits 53 3 parse_table_456"
  unfolding parse_table_456_def by simp

lemma parse_table_457_fits: "row_fits 53 3 parse_table_457"
  unfolding parse_table_457_def by simp

lemma parse_table_458_fits: "row_fits 53 3 parse_table_458"
  unfolding parse_table_458_def by simp

lemma parse_table_459_fits: "row_fits 53 3 parse_table_459"
  unfolding parse_table_459_def by simp

lemma parse_table_460_fits: "row_fits 53 3 parse_table_460"
  unfolding parse_table_460_def by simp

lemma parse_table_461_fits: "row_fits 53 3 parse_table_461"
  unfolding parse_table_461_def by simp

lemma parse_table_462_fits: "row_fits 53 3 parse_table_462"
  unfolding parse_table_462_def by simp

lemma parse_table_463_fits: "row_fits 53 3 parse_table_463"
  unfolding parse_table_463_def by simp

lemma parse_table_464_fits: "row_fits 53 3 parse_table_464"
  unfolding parse_table_464_def by simp

lemma parse_table_465_fits: "row_fits 53 3 parse_table_465"
  unfolding parse_table_465_def by simp

lemma parse_table_466_fits: "row_fits 53 3 parse_table_466"
  unfolding parse_table_466_def by simp

lemma parse_table_467_fits: "row_fits 53 3 parse_table_467"
  unfolding parse_table_467_def by simp

lemma parse_table_468_fits: "row_fits 53 3 parse_table_468"
  unfolding parse_table_468_def by simp

lemma parse_table_469_fits: "row_fits 53 3 parse_table_469"
  unfolding parse_table_469_def by simp

lemma parse_table_470_fits: "row_fits 53 3 parse_table_470"
  unfolding parse_table_470_def by simp

lemma parse_table_471_fits: "row_fits 53 3 parse_table_471"
  unfolding parse_table_471_def by simp

lemma parse_table_472_fits: "row_fits 53 3 parse_table_472"
  unfolding parse_table_472_def by simp

lemma parse_table_473_fits: "row_fits 53 3 parse_table_473"
  unfolding parse_table_473_def by simp

lemma parse_table_474_fits: "row_fits 53 3 parse_table_474"
  unfolding parse_table_474_def by simp

lemma parse_table_475_fits: "row_fits 53 3 parse_table_475"
  unfolding parse_table_475_def by simp

lemma parse_table_476_fits: "row_fits 53 3 parse_table_476"
  unfolding parse_table_476_def by simp

lemma parse_table_477_fits: "row_fits 53 3 parse_table_477"
  unfolding parse_table_477_def by simp

lemma parse_table_478_fits: "row_fits 53 3 parse_table_478"
  unfolding parse_table_478_def by simp

lemma parse_table_479_fits: "row_fits 53 3 parse_table_479"
  unfolding parse_table_479_def by simp

lemma parse_table_480_fits: "row_fits 53 3 parse_table_480"
  unfolding parse_table_480_def by simp

lemma parse_table_481_fits: "row_fits 53 3 parse_table_481"
  unfolding parse_table_481_def by simp

lemma parse_table_482_fits: "row_fits 53 3 parse_table_482"
  unfolding parse_table_482_def by simp

lemma parse_table_483_fits: "row_fits 53 3 parse_table_483"
  unfolding parse_table_483_def by simp

lemma parse_table_484_fits: "row_fits 53 3 parse_table_484"
  unfolding parse_table_484_def by simp

lemma parse_table_485_fits: "row_fits 53 3 parse_table_485"
  unfolding parse_table_485_def by simp

lemma parse_table_486_fits: "row_fits 53 3 parse_table_486"
  unfolding parse_table_486_def by simp

lemma parse_table_487_fits: "row_fits 53 3 parse_table_487"
  unfolding parse_table_487_def by simp

lemma parse_table_488_fits: "row_fits 53 3 parse_table_488"
  unfolding parse_table_488_def by simp

lemma parse_table_489_fits: "row_fits 53 3 parse_table_489"
  unfolding parse_table_489_def by simp

lemma parse_table_490_fits: "row_fits 53 3 parse_table_490"
  unfolding parse_table_490_def by simp

lemma parse_table_491_fits: "row_fits 53 3 parse_table_491"
  unfolding parse_table_491_def by simp

lemma parse_table_492_fits: "row_fits 53 3 parse_table_492"
  unfolding parse_table_492_def by simp

lemma parse_table_493_fits: "row_fits 53 3 parse_table_493"
  unfolding parse_table_493_def by simp

lemma parse_table_494_fits: "row_fits 53 3 parse_table_494"
  unfolding parse_table_494_def by simp

lemma parse_table_495_fits: "row_fits 53 3 parse_table_495"
  unfolding parse_table_495_def by simp

lemma parse_table_496_fits: "row_fits 53 3 parse_table_496"
  unfolding parse_table_496_def by simp

lemma parse_table_497_fits: "row_fits 53 3 parse_table_497"
  unfolding parse_table_497_def by simp

lemma parse_table_498_fits: "row_fits 53 3 parse_table_498"
  unfolding parse_table_498_def by simp

lemma parse_table_499_fits: "row_fits 53 3 parse_table_499"
  unfolding parse_table_499_def by simp

lemma parse_table_500_fits: "row_fits 53 3 parse_table_500"
  unfolding parse_table_500_def by simp

lemma parse_table_501_fits: "row_fits 53 3 parse_table_501"
  unfolding parse_table_501_def by simp

lemma parse_table_502_fits: "row_fits 53 3 parse_table_502"
  unfolding parse_table_502_def by simp

lemma parse_table_503_fits: "row_fits 53 3 parse_table_503"
  unfolding parse_table_503_def by simp

lemma parse_table_504_fits: "row_fits 53 3 parse_table_504"
  unfolding parse_table_504_def by simp

lemma parse_table_505_fits: "row_fits 53 3 parse_table_505"
  unfolding parse_table_505_def by simp

lemma parse_table_506_fits: "row_fits 53 3 parse_table_506"
  unfolding parse_table_506_def by simp

lemma parse_table_507_fits: "row_fits 53 3 parse_table_507"
  unfolding parse_table_507_def by simp

lemma parse_table_508_fits: "row_fits 53 3 parse_table_508"
  unfolding parse_table_508_def by simp

lemma parse_table_509_fits: "row_fits 53 3 parse_table_509"
  unfolding parse_table_509_def by simp

lemma parse_table_510_fits: "row_fits 53 3 parse_table_510"
  unfolding parse_table_510_def by simp

lemma parse_table_511_fits: "row_fits 53 3 parse_table_511"
  unfolding parse_table_511_def by simp

lemma parse_table_512_fits: "row_fits 53 3 parse_table_512"
  unfolding parse_table_512_def by simp

lemma parse_table_513_fits: "row_fits 53 3 parse_table_513"
  unfolding parse_table_513_def by simp

lemma parse_table_514_fits: "row_fits 53 3 parse_table_514"
  unfolding parse_table_514_def by simp

lemma parse_table_515_fits: "row_fits 53 3 parse_table_515"
  unfolding parse_table_515_def by simp

lemma parse_table_516_fits: "row_fits 53 3 parse_table_516"
  unfolding parse_table_516_def by simp

lemma parse_table_517_fits: "row_fits 53 3 parse_table_517"
  unfolding parse_table_517_def by simp

lemma parse_table_518_fits: "row_fits 53 3 parse_table_518"
  unfolding parse_table_518_def by simp

lemma parse_table_519_fits: "row_fits 53 3 parse_table_519"
  unfolding parse_table_519_def by simp

lemma parse_table_520_fits: "row_fits 53 3 parse_table_520"
  unfolding parse_table_520_def by simp

lemma parse_table_521_fits: "row_fits 53 3 parse_table_521"
  unfolding parse_table_521_def by simp

lemma parse_table_522_fits: "row_fits 53 3 parse_table_522"
  unfolding parse_table_522_def by simp

lemma parse_table_523_fits: "row_fits 53 3 parse_table_523"
  unfolding parse_table_523_def by simp

lemma parse_table_524_fits: "row_fits 53 3 parse_table_524"
  unfolding parse_table_524_def by simp

lemma parse_table_525_fits: "row_fits 53 3 parse_table_525"
  unfolding parse_table_525_def by simp

lemma parse_table_526_fits: "row_fits 53 3 parse_table_526"
  unfolding parse_table_526_def by simp

lemma parse_table_527_fits: "row_fits 53 3 parse_table_527"
  unfolding parse_table_527_def by simp

lemma parse_table_528_fits: "row_fits 53 3 parse_table_528"
  unfolding parse_table_528_def by simp

lemma parse_table_529_fits: "row_fits 53 3 parse_table_529"
  unfolding parse_table_529_def by simp

lemma parse_table_530_fits: "row_fits 53 3 parse_table_530"
  unfolding parse_table_530_def by simp

lemma parse_table_531_fits: "row_fits 53 3 parse_table_531"
  unfolding parse_table_531_def by simp

lemma parse_table_532_fits: "row_fits 53 3 parse_table_532"
  unfolding parse_table_532_def by simp

lemma parse_table_533_fits: "row_fits 53 3 parse_table_533"
  unfolding parse_table_533_def by simp

lemma parse_table_534_fits: "row_fits 53 3 parse_table_534"
  unfolding parse_table_534_def by simp

lemma parse_table_535_fits: "row_fits 53 3 parse_table_535"
  unfolding parse_table_535_def by simp

lemma parse_table_536_fits: "row_fits 53 3 parse_table_536"
  unfolding parse_table_536_def by simp

lemma parse_table_537_fits: "row_fits 53 3 parse_table_537"
  unfolding parse_table_537_def by simp

lemma parse_table_538_fits: "row_fits 53 3 parse_table_538"
  unfolding parse_table_538_def by simp

lemma parse_table_539_fits: "row_fits 53 3 parse_table_539"
  unfolding parse_table_539_def by simp

lemma parse_table_540_fits: "row_fits 53 3 parse_table_540"
  unfolding parse_table_540_def by simp

lemma parse_table_541_fits: "row_fits 53 3 parse_table_541"
  unfolding parse_table_541_def by simp

lemma parse_table_542_fits: "row_fits 53 3 parse_table_542"
  unfolding parse_table_542_def by simp

lemma parse_table_543_fits: "row_fits 53 3 parse_table_543"
  unfolding parse_table_543_def by simp

lemma parse_table_544_fits: "row_fits 53 3 parse_table_544"
  unfolding parse_table_544_def by simp

lemma parse_table_545_fits: "row_fits 53 3 parse_table_545"
  unfolding parse_table_545_def by simp

lemma parse_table_546_fits: "row_fits 53 3 parse_table_546"
  unfolding parse_table_546_def by simp

lemma parse_table_547_fits: "row_fits 53 3 parse_table_547"
  unfolding parse_table_547_def by simp

lemma parse_table_548_fits: "row_fits 53 3 parse_table_548"
  unfolding parse_table_548_def by simp

lemma parse_table_549_fits: "row_fits 53 3 parse_table_549"
  unfolding parse_table_549_def by simp

lemma parse_table_550_fits: "row_fits 53 3 parse_table_550"
  unfolding parse_table_550_def by simp

lemma parse_table_551_fits: "row_fits 53 3 parse_table_551"
  unfolding parse_table_551_def by simp

lemma parse_table_552_fits: "row_fits 53 3 parse_table_552"
  unfolding parse_table_552_def by simp

lemma parse_table_553_fits: "row_fits 53 3 parse_table_553"
  unfolding parse_table_553_def by simp

lemma parse_table_554_fits: "row_fits 53 3 parse_table_554"
  unfolding parse_table_554_def by simp

lemma parse_table_555_fits: "row_fits 53 3 parse_table_555"
  unfolding parse_table_555_def by simp

lemma parse_table_556_fits: "row_fits 53 3 parse_table_556"
  unfolding parse_table_556_def by simp

lemma parse_table_557_fits: "row_fits 53 3 parse_table_557"
  unfolding parse_table_557_def by simp

lemma parse_table_558_fits: "row_fits 53 3 parse_table_558"
  unfolding parse_table_558_def by simp

lemma parse_table_559_fits: "row_fits 53 3 parse_table_559"
  unfolding parse_table_559_def by simp

lemma parse_table_560_fits: "row_fits 53 3 parse_table_560"
  unfolding parse_table_560_def by simp

lemma parse_table_561_fits: "row_fits 53 3 parse_table_561"
  unfolding parse_table_561_def by simp

lemma parse_table_562_fits: "row_fits 53 3 parse_table_562"
  unfolding parse_table_562_def by simp

lemma parse_table_563_fits: "row_fits 53 3 parse_table_563"
  unfolding parse_table_563_def by simp

lemma parse_table_564_fits: "row_fits 53 3 parse_table_564"
  unfolding parse_table_564_def by simp

lemma parse_table_565_fits: "row_fits 53 3 parse_table_565"
  unfolding parse_table_565_def by simp

lemma parse_table_566_fits: "row_fits 53 3 parse_table_566"
  unfolding parse_table_566_def by simp

lemma parse_table_567_fits: "row_fits 53 3 parse_table_567"
  unfolding parse_table_567_def by simp

lemma parse_table_568_fits: "row_fits 53 3 parse_table_568"
  unfolding parse_table_568_def by simp

lemma parse_table_569_fits: "row_fits 53 3 parse_table_569"
  unfolding parse_table_569_def by simp

lemma parse_table_570_fits: "row_fits 53 3 parse_table_570"
  unfolding parse_table_570_def by simp

lemma parse_table_571_fits: "row_fits 53 3 parse_table_571"
  unfolding parse_table_571_def by simp

lemma parse_table_572_fits: "row_fits 53 3 parse_table_572"
  unfolding parse_table_572_def by simp

lemma parse_table_573_fits: "row_fits 53 3 parse_table_573"
  unfolding parse_table_573_def by simp

lemma parse_table_574_fits: "row_fits 53 3 parse_table_574"
  unfolding parse_table_574_def by simp

lemma parse_table_575_fits: "row_fits 53 3 parse_table_575"
  unfolding parse_table_575_def by simp

lemma parse_table_576_fits: "row_fits 53 3 parse_table_576"
  unfolding parse_table_576_def by simp

lemma parse_table_577_fits: "row_fits 53 3 parse_table_577"
  unfolding parse_table_577_def by simp

lemma parse_table_578_fits: "row_fits 53 3 parse_table_578"
  unfolding parse_table_578_def by simp

lemma parse_table_579_fits: "row_fits 53 3 parse_table_579"
  unfolding parse_table_579_def by simp

lemma parse_table_580_fits: "row_fits 53 3 parse_table_580"
  unfolding parse_table_580_def by simp

lemma parse_table_581_fits: "row_fits 53 3 parse_table_581"
  unfolding parse_table_581_def by simp

lemma parse_table_582_fits: "row_fits 53 3 parse_table_582"
  unfolding parse_table_582_def by simp

lemma parse_table_583_fits: "row_fits 53 3 parse_table_583"
  unfolding parse_table_583_def by simp

lemma parse_table_584_fits: "row_fits 53 3 parse_table_584"
  unfolding parse_table_584_def by simp

lemma parse_table_585_fits: "row_fits 53 3 parse_table_585"
  unfolding parse_table_585_def by simp

lemma parse_table_586_fits: "row_fits 53 3 parse_table_586"
  unfolding parse_table_586_def by simp

lemma parse_table_587_fits: "row_fits 53 3 parse_table_587"
  unfolding parse_table_587_def by simp

lemma parse_table_588_fits: "row_fits 53 3 parse_table_588"
  unfolding parse_table_588_def by simp

lemma parse_table_589_fits: "row_fits 53 3 parse_table_589"
  unfolding parse_table_589_def by simp

lemma parse_table_590_fits: "row_fits 53 3 parse_table_590"
  unfolding parse_table_590_def by simp

lemma parse_table_591_fits: "row_fits 53 3 parse_table_591"
  unfolding parse_table_591_def by simp

lemma parse_table_592_fits: "row_fits 53 3 parse_table_592"
  unfolding parse_table_592_def by simp

lemma parse_table_593_fits: "row_fits 53 3 parse_table_593"
  unfolding parse_table_593_def by simp

lemma parse_table_594_fits: "row_fits 53 3 parse_table_594"
  unfolding parse_table_594_def by simp

lemma parse_table_595_fits: "row_fits 53 3 parse_table_595"
  unfolding parse_table_595_def by simp

lemma parse_table_596_fits: "row_fits 53 3 parse_table_596"
  unfolding parse_table_596_def by simp

lemma parse_table_597_fits: "row_fits 53 3 parse_table_597"
  unfolding parse_table_597_def by simp

lemma parse_table_598_fits: "row_fits 53 3 parse_table_598"
  unfolding parse_table_598_def by simp

lemma parse_table_599_fits: "row_fits 53 3 parse_table_599"
  unfolding parse_table_599_def by simp

declare table_row_check [simp del] One_nat_def [simp]

end
