(* ===== verification/Mojo_Parse_Row_Proofs_4.thy ===== *)
theory Mojo_Parse_Row_Proofs_4
  imports Mojo_Parse_Row_Checks Mojo_Parse_Rows_4
begin

text \<open>
  The rows of the parse states from 600 to 749 fit, checked row by row.
\<close>

section \<open>Rows\<close>

declare table_row_check [simp] One_nat_def [simp del]

lemma parse_table_600_fits: "row_fits 53 3 parse_table_600"
  unfolding parse_table_600_def by simp

lemma parse_table_601_fits: "row_fits 53 3 parse_table_601"
  unfolding parse_table_601_def by simp

lemma parse_table_602_fits: "row_fits 53 3 parse_table_602"
  unfolding parse_table_602_def by simp

lemma parse_table_603_fits: "row_fits 53 3 parse_table_603"
  unfolding parse_table_603_def by simp

lemma parse_table_604_fits: "row_fits 53 3 parse_table_604"
  unfolding parse_table_604_def by simp

lemma parse_table_605_fits: "row_fits 53 3 parse_table_605"
  unfolding parse_table_605_def by simp

lemma parse_table_606_fits: "row_fits 53 3 parse_table_606"
  unfolding parse_table_606_def by simp

lemma parse_table_607_fits: "row_fits 53 3 parse_table_607"
  unfolding parse_table_607_def by simp

lemma parse_table_608_fits: "row_fits 53 3 parse_table_608"
  unfolding parse_table_608_def by simp

lemma parse_table_609_fits: "row_fits 53 3 parse_table_609"
  unfolding parse_table_609_def by simp

lemma parse_table_610_fits: "row_fits 53 3 parse_table_610"
  unfolding parse_table_610_def by simp

lemma parse_table_611_fits: "row_fits 53 3 parse_table_611"
  unfolding parse_table_611_def by simp

lemma parse_table_612_fits: "row_fits 53 3 parse_table_612"
  unfolding parse_table_612_def by simp

lemma parse_table_613_fits: "row_fits 53 3 parse_table_613"
  unfolding parse_table_613_def by simp

lemma parse_table_614_fits: "row_fits 53 3 parse_table_614"
  unfolding parse_table_614_def by simp

lemma parse_table_615_fits: "row_fits 53 3 parse_table_615"
  unfolding parse_table_615_def by simp

lemma parse_table_616_fits: "row_fits 53 3 parse_table_616"
  unfolding parse_table_616_def by simp

lemma parse_table_617_fits: "row_fits 53 3 parse_table_617"
  unfolding parse_table_617_def by simp

lemma parse_table_618_fits: "row_fits 53 3 parse_table_618"
  unfolding parse_table_618_def by simp

lemma parse_table_619_fits: "row_fits 53 3 parse_table_619"
  unfolding parse_table_619_def by simp

lemma parse_table_620_fits: "row_fits 53 3 parse_table_620"
  unfolding parse_table_620_def by simp

lemma parse_table_621_fits: "row_fits 53 3 parse_table_621"
  unfolding parse_table_621_def by simp

lemma parse_table_622_fits: "row_fits 53 3 parse_table_622"
  unfolding parse_table_622_def by simp

lemma parse_table_623_fits: "row_fits 53 3 parse_table_623"
  unfolding parse_table_623_def by simp

lemma parse_table_624_fits: "row_fits 53 3 parse_table_624"
  unfolding parse_table_624_def by simp

lemma parse_table_625_fits: "row_fits 53 3 parse_table_625"
  unfolding parse_table_625_def by simp

lemma parse_table_626_fits: "row_fits 53 3 parse_table_626"
  unfolding parse_table_626_def by simp

lemma parse_table_627_fits: "row_fits 53 3 parse_table_627"
  unfolding parse_table_627_def by simp

lemma parse_table_628_fits: "row_fits 53 3 parse_table_628"
  unfolding parse_table_628_def by simp

lemma parse_table_629_fits: "row_fits 53 3 parse_table_629"
  unfolding parse_table_629_def by simp

lemma parse_table_630_fits: "row_fits 53 3 parse_table_630"
  unfolding parse_table_630_def by simp

lemma parse_table_631_fits: "row_fits 53 3 parse_table_631"
  unfolding parse_table_631_def by simp

lemma parse_table_632_fits: "row_fits 53 3 parse_table_632"
  unfolding parse_table_632_def by simp

lemma parse_table_633_fits: "row_fits 53 3 parse_table_633"
  unfolding parse_table_633_def by simp

lemma parse_table_634_fits: "row_fits 53 3 parse_table_634"
  unfolding parse_table_634_def by simp

lemma parse_table_635_fits: "row_fits 53 3 parse_table_635"
  unfolding parse_table_635_def by simp

lemma parse_table_636_fits: "row_fits 53 3 parse_table_636"
  unfolding parse_table_636_def by simp

lemma parse_table_637_fits: "row_fits 53 3 parse_table_637"
  unfolding parse_table_637_def by simp

lemma parse_table_638_fits: "row_fits 53 3 parse_table_638"
  unfolding parse_table_638_def by simp

lemma parse_table_639_fits: "row_fits 53 3 parse_table_639"
  unfolding parse_table_639_def by simp

lemma parse_table_640_fits: "row_fits 53 3 parse_table_640"
  unfolding parse_table_640_def by simp

lemma parse_table_641_fits: "row_fits 53 3 parse_table_641"
  unfolding parse_table_641_def by simp

lemma parse_table_642_fits: "row_fits 53 3 parse_table_642"
  unfolding parse_table_642_def by simp

lemma parse_table_643_fits: "row_fits 53 3 parse_table_643"
  unfolding parse_table_643_def by simp

lemma parse_table_644_fits: "row_fits 53 3 parse_table_644"
  unfolding parse_table_644_def by simp

lemma parse_table_645_fits: "row_fits 53 3 parse_table_645"
  unfolding parse_table_645_def by simp

lemma parse_table_646_fits: "row_fits 53 3 parse_table_646"
  unfolding parse_table_646_def by simp

lemma parse_table_647_fits: "row_fits 53 3 parse_table_647"
  unfolding parse_table_647_def by simp

lemma parse_table_648_fits: "row_fits 53 3 parse_table_648"
  unfolding parse_table_648_def by simp

lemma parse_table_649_fits: "row_fits 53 3 parse_table_649"
  unfolding parse_table_649_def by simp

lemma parse_table_650_fits: "row_fits 53 3 parse_table_650"
  unfolding parse_table_650_def by simp

lemma parse_table_651_fits: "row_fits 53 3 parse_table_651"
  unfolding parse_table_651_def by simp

lemma parse_table_652_fits: "row_fits 53 3 parse_table_652"
  unfolding parse_table_652_def by simp

lemma parse_table_653_fits: "row_fits 53 3 parse_table_653"
  unfolding parse_table_653_def by simp

lemma parse_table_654_fits: "row_fits 53 3 parse_table_654"
  unfolding parse_table_654_def by simp

lemma parse_table_655_fits: "row_fits 53 3 parse_table_655"
  unfolding parse_table_655_def by simp

lemma parse_table_656_fits: "row_fits 53 3 parse_table_656"
  unfolding parse_table_656_def by simp

lemma parse_table_657_fits: "row_fits 53 3 parse_table_657"
  unfolding parse_table_657_def by simp

lemma parse_table_658_fits: "row_fits 53 3 parse_table_658"
  unfolding parse_table_658_def by simp

lemma parse_table_659_fits: "row_fits 53 3 parse_table_659"
  unfolding parse_table_659_def by simp

lemma parse_table_660_fits: "row_fits 53 3 parse_table_660"
  unfolding parse_table_660_def by simp

lemma parse_table_661_fits: "row_fits 53 3 parse_table_661"
  unfolding parse_table_661_def by simp

lemma parse_table_662_fits: "row_fits 53 3 parse_table_662"
  unfolding parse_table_662_def by simp

lemma parse_table_663_fits: "row_fits 53 3 parse_table_663"
  unfolding parse_table_663_def by simp

lemma parse_table_664_fits: "row_fits 53 3 parse_table_664"
  unfolding parse_table_664_def by simp

lemma parse_table_665_fits: "row_fits 53 3 parse_table_665"
  unfolding parse_table_665_def by simp

lemma parse_table_666_fits: "row_fits 53 3 parse_table_666"
  unfolding parse_table_666_def by simp

lemma parse_table_667_fits: "row_fits 53 3 parse_table_667"
  unfolding parse_table_667_def by simp

lemma parse_table_668_fits: "row_fits 53 3 parse_table_668"
  unfolding parse_table_668_def by simp

lemma parse_table_669_fits: "row_fits 53 3 parse_table_669"
  unfolding parse_table_669_def by simp

lemma parse_table_670_fits: "row_fits 53 3 parse_table_670"
  unfolding parse_table_670_def by simp

lemma parse_table_671_fits: "row_fits 53 3 parse_table_671"
  unfolding parse_table_671_def by simp

lemma parse_table_672_fits: "row_fits 53 3 parse_table_672"
  unfolding parse_table_672_def by simp

lemma parse_table_673_fits: "row_fits 53 3 parse_table_673"
  unfolding parse_table_673_def by simp

lemma parse_table_674_fits: "row_fits 53 3 parse_table_674"
  unfolding parse_table_674_def by simp

lemma parse_table_675_fits: "row_fits 53 3 parse_table_675"
  unfolding parse_table_675_def by simp

lemma parse_table_676_fits: "row_fits 53 3 parse_table_676"
  unfolding parse_table_676_def by simp

lemma parse_table_677_fits: "row_fits 53 3 parse_table_677"
  unfolding parse_table_677_def by simp

lemma parse_table_678_fits: "row_fits 53 3 parse_table_678"
  unfolding parse_table_678_def by simp

lemma parse_table_679_fits: "row_fits 53 3 parse_table_679"
  unfolding parse_table_679_def by simp

lemma parse_table_680_fits: "row_fits 53 3 parse_table_680"
  unfolding parse_table_680_def by simp

lemma parse_table_681_fits: "row_fits 53 3 parse_table_681"
  unfolding parse_table_681_def by simp

lemma parse_table_682_fits: "row_fits 53 3 parse_table_682"
  unfolding parse_table_682_def by simp

lemma parse_table_683_fits: "row_fits 53 3 parse_table_683"
  unfolding parse_table_683_def by simp

lemma parse_table_684_fits: "row_fits 53 3 parse_table_684"
  unfolding parse_table_684_def by simp

lemma parse_table_685_fits: "row_fits 53 3 parse_table_685"
  unfolding parse_table_685_def by simp

lemma parse_table_686_fits: "row_fits 53 3 parse_table_686"
  unfolding parse_table_686_def by simp

lemma parse_table_687_fits: "row_fits 53 3 parse_table_687"
  unfolding parse_table_687_def by simp

lemma parse_table_688_fits: "row_fits 53 3 parse_table_688"
  unfolding parse_table_688_def by simp

lemma parse_table_689_fits: "row_fits 53 3 parse_table_689"
  unfolding parse_table_689_def by simp

lemma parse_table_690_fits: "row_fits 53 3 parse_table_690"
  unfolding parse_table_690_def by simp

lemma parse_table_691_fits: "row_fits 53 3 parse_table_691"
  unfolding parse_table_691_def by simp

lemma parse_table_692_fits: "row_fits 53 3 parse_table_692"
  unfolding parse_table_692_def by simp

lemma parse_table_693_fits: "row_fits 53 3 parse_table_693"
  unfolding parse_table_693_def by simp

lemma parse_table_694_fits: "row_fits 53 3 parse_table_694"
  unfolding parse_table_694_def by simp

lemma parse_table_695_fits: "row_fits 53 3 parse_table_695"
  unfolding parse_table_695_def by simp

lemma parse_table_696_fits: "row_fits 53 3 parse_table_696"
  unfolding parse_table_696_def by simp

lemma parse_table_697_fits: "row_fits 53 3 parse_table_697"
  unfolding parse_table_697_def by simp

lemma parse_table_698_fits: "row_fits 53 3 parse_table_698"
  unfolding parse_table_698_def by simp

lemma parse_table_699_fits: "row_fits 53 3 parse_table_699"
  unfolding parse_table_699_def by simp

lemma parse_table_700_fits: "row_fits 53 3 parse_table_700"
  unfolding parse_table_700_def by simp

lemma parse_table_701_fits: "row_fits 53 3 parse_table_701"
  unfolding parse_table_701_def by simp

lemma parse_table_702_fits: "row_fits 53 3 parse_table_702"
  unfolding parse_table_702_def by simp

lemma parse_table_703_fits: "row_fits 53 3 parse_table_703"
  unfolding parse_table_703_def by simp

lemma parse_table_704_fits: "row_fits 53 3 parse_table_704"
  unfolding parse_table_704_def by simp

lemma parse_table_705_fits: "row_fits 53 3 parse_table_705"
  unfolding parse_table_705_def by simp

lemma parse_table_706_fits: "row_fits 53 3 parse_table_706"
  unfolding parse_table_706_def by simp

lemma parse_table_707_fits: "row_fits 53 3 parse_table_707"
  unfolding parse_table_707_def by simp

lemma parse_table_708_fits: "row_fits 53 3 parse_table_708"
  unfolding parse_table_708_def by simp

lemma parse_table_709_fits: "row_fits 53 3 parse_table_709"
  unfolding parse_table_709_def by simp

lemma parse_table_710_fits: "row_fits 53 3 parse_table_710"
  unfolding parse_table_710_def by simp

lemma parse_table_711_fits: "row_fits 53 3 parse_table_711"
  unfolding parse_table_711_def by simp

lemma parse_table_712_fits: "row_fits 53 3 parse_table_712"
  unfolding parse_table_712_def by simp

lemma parse_table_713_fits: "row_fits 53 3 parse_table_713"
  unfolding parse_table_713_def by simp

lemma parse_table_714_fits: "row_fits 53 3 parse_table_714"
  unfolding parse_table_714_def by simp

lemma parse_table_715_fits: "row_fits 53 3 parse_table_715"
  unfolding parse_table_715_def by simp

lemma parse_table_716_fits: "row_fits 53 3 parse_table_716"
  unfolding parse_table_716_def by simp

lemma parse_table_717_fits: "row_fits 53 3 parse_table_717"
  unfolding parse_table_717_def by simp

lemma parse_table_718_fits: "row_fits 53 3 parse_table_718"
  unfolding parse_table_718_def by simp

lemma parse_table_719_fits: "row_fits 53 3 parse_table_719"
  unfolding parse_table_719_def by simp

lemma parse_table_720_fits: "row_fits 53 3 parse_table_720"
  unfolding parse_table_720_def by simp

lemma parse_table_721_fits: "row_fits 53 3 parse_table_721"
  unfolding parse_table_721_def by simp

lemma parse_table_722_fits: "row_fits 53 3 parse_table_722"
  unfolding parse_table_722_def by simp

lemma parse_table_723_fits: "row_fits 53 3 parse_table_723"
  unfolding parse_table_723_def by simp

lemma parse_table_724_fits: "row_fits 53 3 parse_table_724"
  unfolding parse_table_724_def by simp

lemma parse_table_725_fits: "row_fits 53 3 parse_table_725"
  unfolding parse_table_725_def by simp

lemma parse_table_726_fits: "row_fits 53 3 parse_table_726"
  unfolding parse_table_726_def by simp

lemma parse_table_727_fits: "row_fits 53 3 parse_table_727"
  unfolding parse_table_727_def by simp

lemma parse_table_728_fits: "row_fits 53 3 parse_table_728"
  unfolding parse_table_728_def by simp

lemma parse_table_729_fits: "row_fits 53 3 parse_table_729"
  unfolding parse_table_729_def by simp

lemma parse_table_730_fits: "row_fits 53 3 parse_table_730"
  unfolding parse_table_730_def by simp

lemma parse_table_731_fits: "row_fits 53 3 parse_table_731"
  unfolding parse_table_731_def by simp

lemma parse_table_732_fits: "row_fits 53 3 parse_table_732"
  unfolding parse_table_732_def by simp

lemma parse_table_733_fits: "row_fits 53 3 parse_table_733"
  unfolding parse_table_733_def by simp

lemma parse_table_734_fits: "row_fits 53 3 parse_table_734"
  unfolding parse_table_734_def by simp

lemma parse_table_735_fits: "row_fits 53 3 parse_table_735"
  unfolding parse_table_735_def by simp

lemma parse_table_736_fits: "row_fits 53 3 parse_table_736"
  unfolding parse_table_736_def by simp

lemma parse_table_737_fits: "row_fits 53 3 parse_table_737"
  unfolding parse_table_737_def by simp

lemma parse_table_738_fits: "row_fits 53 3 parse_table_738"
  unfolding parse_table_738_def by simp

lemma parse_table_739_fits: "row_fits 53 3 parse_table_739"
  unfolding parse_table_739_def by simp

lemma parse_table_740_fits: "row_fits 53 3 parse_table_740"
  unfolding parse_table_740_def by simp

lemma parse_table_741_fits: "row_fits 53 3 parse_table_741"
  unfolding parse_table_741_def by simp

lemma parse_table_742_fits: "row_fits 53 3 parse_table_742"
  unfolding parse_table_742_def by simp

lemma parse_table_743_fits: "row_fits 53 3 parse_table_743"
  unfolding parse_table_743_def by simp

lemma parse_table_744_fits: "row_fits 53 3 parse_table_744"
  unfolding parse_table_744_def by simp

lemma parse_table_745_fits: "row_fits 53 3 parse_table_745"
  unfolding parse_table_745_def by simp

lemma parse_table_746_fits: "row_fits 53 3 parse_table_746"
  unfolding parse_table_746_def by simp

lemma parse_table_747_fits: "row_fits 53 3 parse_table_747"
  unfolding parse_table_747_def by simp

lemma parse_table_748_fits: "row_fits 53 3 parse_table_748"
  unfolding parse_table_748_def by simp

lemma parse_table_749_fits: "row_fits 53 3 parse_table_749"
  unfolding parse_table_749_def by simp

declare table_row_check [simp del] One_nat_def [simp]

end
