(* ===== verification/Mojo_Parse_Row_Proofs_5.thy ===== *)
theory Mojo_Parse_Row_Proofs_5
  imports Mojo_Parse_Row_Checks Mojo_Parse_Rows_5
begin

text \<open>
  The rows of the parse states from 750 to 899 fit, checked row by row.
\<close>

section \<open>Rows\<close>

declare table_row_check [simp] One_nat_def [simp del]

lemma parse_table_750_fits: "row_fits 53 3 parse_table_750"
  unfolding parse_table_750_def by simp

lemma parse_table_751_fits: "row_fits 53 3 parse_table_751"
  unfolding parse_table_751_def by simp

lemma parse_table_752_fits: "row_fits 53 3 parse_table_752"
  unfolding parse_table_752_def by simp

lemma parse_table_753_fits: "row_fits 53 3 parse_table_753"
  unfolding parse_table_753_def by simp

lemma parse_table_754_fits: "row_fits 53 3 parse_table_754"
  unfolding parse_table_754_def by simp

lemma parse_table_755_fits: "row_fits 53 3 parse_table_755"
  unfolding parse_table_755_def by simp

lemma parse_table_756_fits: "row_fits 53 3 parse_table_756"
  unfolding parse_table_756_def by simp

lemma parse_table_757_fits: "row_fits 53 3 parse_table_757"
  unfolding parse_table_757_def by simp

lemma parse_table_758_fits: "row_fits 53 3 parse_table_758"
  unfolding parse_table_758_def by simp

lemma parse_table_759_fits: "row_fits 53 3 parse_table_759"
  unfolding parse_table_759_def by simp

lemma parse_table_760_fits: "row_fits 53 3 parse_table_760"
  unfolding parse_table_760_def by simp

lemma parse_table_761_fits: "row_fits 53 3 parse_table_761"
  unfolding parse_table_761_def by simp

lemma parse_table_762_fits: "row_fits 53 3 parse_table_762"
  unfolding parse_table_762_def by simp

lemma parse_table_763_fits: "row_fits 53 3 parse_table_763"
  unfolding parse_table_763_def by simp

lemma parse_table_764_fits: "row_fits 53 3 parse_table_764"
  unfolding parse_table_764_def by simp

lemma parse_table_765_fits: "row_fits 53 3 parse_table_765"
  unfolding parse_table_765_def by simp

lemma parse_table_766_fits: "row_fits 53 3 parse_table_766"
  unfolding parse_table_766_def by simp

lemma parse_table_767_fits: "row_fits 53 3 parse_table_767"
  unfolding parse_table_767_def by simp

lemma parse_table_768_fits: "row_fits 53 3 parse_table_768"
  unfolding parse_table_768_def by simp

lemma parse_table_769_fits: "row_fits 53 3 parse_table_769"
  unfolding parse_table_769_def by simp

lemma parse_table_770_fits: "row_fits 53 3 parse_table_770"
  unfolding parse_table_770_def by simp

lemma parse_table_771_fits: "row_fits 53 3 parse_table_771"
  unfolding parse_table_771_def by simp

lemma parse_table_772_fits: "row_fits 53 3 parse_table_772"
  unfolding parse_table_772_def by simp

lemma parse_table_773_fits: "row_fits 53 3 parse_table_773"
  unfolding parse_table_773_def by simp

lemma parse_table_774_fits: "row_fits 53 3 parse_table_774"
  unfolding parse_table_774_def by simp

lemma parse_table_775_fits: "row_fits 53 3 parse_table_775"
  unfolding parse_table_775_def by simp

lemma parse_table_776_fits: "row_fits 53 3 parse_table_776"
  unfolding parse_table_776_def by simp

lemma parse_table_777_fits: "row_fits 53 3 parse_table_777"
  unfolding parse_table_777_def by simp

lemma parse_table_778_fits: "row_fits 53 3 parse_table_778"
  unfolding parse_table_778_def by simp

lemma parse_table_779_fits: "row_fits 53 3 parse_table_779"
  unfolding parse_table_779_def by simp

lemma parse_table_780_fits: "row_fits 53 3 parse_table_780"
  unfolding parse_table_780_def by simp

lemma parse_table_781_fits: "row_fits 53 3 parse_table_781"
  unfolding parse_table_781_def by simp

lemma parse_table_782_fits: "row_fits 53 3 parse_table_782"
  unfolding parse_table_782_def by simp

lemma parse_table_783_fits: "row_fits 53 3 parse_table_783"
  unfolding parse_table_783_def by simp

lemma parse_table_784_fits: "row_fits 53 3 parse_table_784"
  unfolding parse_table_784_def by simp

lemma parse_table_785_fits: "row_fits 53 3 parse_table_785"
  unfolding parse_table_785_def by simp

lemma parse_table_786_fits: "row_fits 53 3 parse_table_786"
  unfolding parse_table_786_def by simp

lemma parse_table_787_fits: "row_fits 53 3 parse_table_787"
  unfolding parse_table_787_def by simp

lemma parse_table_788_fits: "row_fits 53 3 parse_table_788"
  unfolding parse_table_788_def by simp

lemma parse_table_789_fits: "row_fits 53 3 parse_table_789"
  unfolding parse_table_789_def by simp

lemma parse_table_790_fits: "row_fits 53 3 parse_table_790"
  unfolding parse_table_790_def by simp

lemma parse_table_791_fits: "row_fits 53 3 parse_table_791"
  unfolding parse_table_791_def by simp

lemma parse_table_792_fits: "row_fits 53 3 parse_table_792"
  unfolding parse_table_792_def by simp

lemma parse_table_793_fits: "row_fits 53 3 parse_table_793"
  unfolding parse_table_793_def by simp

lemma parse_table_794_fits: "row_fits 53 3 parse_table_794"
  unfolding parse_table_794_def by simp

lemma parse_table_795_fits: "row_fits 53 3 parse_table_795"
  unfolding parse_table_795_def by simp

lemma parse_table_796_fits: "row_fits 53 3 parse_table_796"
  unfolding parse_table_796_def by simp

lemma parse_table_797_fits: "row_fits 53 3 parse_table_797"
  unfolding parse_table_797_def by simp

lemma parse_table_798_fits: "row_fits 53 3 parse_table_798"
  unfolding parse_table_798_def by simp

lemma parse_table_799_fits: "row_fits 53 3 parse_table_799"
  unfolding parse_table_799_def by simp

lemma parse_table_800_fits: "row_fits 53 3 parse_table_800"
  unfolding parse_table_800_def by simp

lemma parse_table_801_fits: "row_fits 53 3 parse_table_801"
  unfolding parse_table_801_def by simp

lemma parse_table_802_fits: "row_fits 53 3 parse_table_802"
  unfolding parse_table_802_def by simp

lemma parse_table_803_fits: "row_fits 53 3 parse_table_803"
  unfolding parse_table_803_def by simp

lemma parse_table_804_fits: "row_fits 53 3 parse_table_804"
  unfolding parse_table_804_def by simp

lemma parse_table_805_fits: "row_fits 53 3 parse_table_805"
  unfolding parse_table_805_def by simp

lemma parse_table_806_fits: "row_fits 53 3 parse_table_806"
  unfolding parse_table_806_def by simp

lemma parse_table_807_fits: "row_fits 53 3 parse_table_807"
  unfolding parse_table_807_def by simp

lemma parse_table_808_fits: "row_fits 53 3 parse_table_808"
  unfolding parse_table_808_def by simp

lemma parse_table_809_fits: "row_fits 53 3 parse_table_809"
  unfolding parse_table_809_def by simp

lemma parse_table_810_fits: "row_fits 53 3 parse_table_810"
  unfolding parse_table_810_def by simp

lemma parse_table_811_fits: "row_fits 53 3 parse_table_811"
  unfolding parse_table_811_def by simp

lemma parse_table_812_fits: "row_fits 53 3 parse_table_812"
  unfolding parse_table_812_def by simp

lemma parse_table_813_fits: "row_fits 53 3 parse_table_813"
  unfolding parse_table_813_def by simp

lemma parse_table_814_fits: "row_fits 53 3 parse_table_814"
  unfolding parse_table_814_def by simp

lemma parse_table_815_fits: "row_fits 53 3 parse_table_815"
  unfolding parse_table_815_def by simp

lemma parse_table_816_fits: "row_fits 53 3 parse_table_816"
  unfolding parse_table_816_def by simp

lemma parse_table_817_fits: "row_fits 53 3 parse_table_817"
  unfolding parse_table_817_def by simp

lemma parse_table_818_fits: "row_fits 53 3 parse_table_818"
  unfolding parse_table_818_def by simp

lemma parse_table_819_fits: "row_fits 53 3 parse_table_819"
  unfolding parse_table_819_def by simp

lemma parse_table_820_fits: "row_fits 53 3 parse_table_820"
  unfolding parse_table_820_def by simp

lemma parse_table_821_fits: "row_fits 53 3 parse_table_821"
  unfolding parse_table_821_def by simp

lemma parse_table_822_fits: "row_fits 53 3 parse_table_822"
  unfolding parse_table_822_def by simp

lemma parse_table_823_fits: "row_fits 53 3 parse_table_823"
  unfolding parse_table_823_def by simp

lemma parse_table_824_fits: "row_fits 53 3 parse_table_824"
  unfolding parse_table_824_def by simp

lemma parse_table_825_fits: "row_fits 53 3 parse_table_825"
  unfolding parse_table_825_def by simp

lemma parse_table_826_fits: "row_fits 53 3 parse_table_826"
  unfolding parse_table_826_def by simp

lemma parse_table_827_fits: "row_fits 53 3 parse_table_827"
  unfolding parse_table_827_def by simp

lemma parse_table_828_fits: "row_fits 53 3 parse_table_828"
  unfolding parse_table_828_def by simp

lemma parse_table_829_fits: "row_fits 53 3 parse_table_829"
  unfolding parse_table_829_def by simp

lemma parse_table_830_fits: "row_fits 53 3 parse_table_830"
  unfolding parse_table_830_def by simp

lemma parse_table_831_fits: "row_fits 53 3 parse_table_831"
  unfolding parse_table_831_def by simp

lemma parse_table_832_fits: "row_fits 53 3 parse_table_832"
  unfolding parse_table_832_def by simp

lemma parse_table_833_fits: "row_fits 53 3 parse_table_833"
  unfolding parse_table_833_def by simp

lemma parse_table_834_fits: "row_fits 53 3 parse_table_834"
  unfolding parse_table_834_def by simp

lemma parse_table_835_fits: "row_fits 53 3 parse_table_835"
  unfolding parse_table_835_def by simp

lemma parse_table_836_fits: "row_fits 53 3 parse_table_836"
  unfolding parse_table_836_def by simp

lemma parse_table_837_fits: "row_fits 53 3 parse_table_837"
  unfolding parse_table_837_def by simp

lemma parse_table_838_fits: "row_fits 53 3 parse_table_838"
  unfolding parse_table_838_def by simp

lemma parse_table_839_fits: "row_fits 53 3 parse_table_839"
  unfolding parse_table_839_def by simp

lemma parse_table_840_fits: "row_fits 53 3 parse_table_840"
  unfolding parse_table_840_def by simp

lemma parse_table_841_fits: "row_fits 53 3 parse_table_841"
  unfolding parse_table_841_def by simp

lemma parse_table_842_fits: "row_fits 53 3 parse_table_842"
  unfolding parse_table_842_def by simp

lemma parse_table_843_fits: "row_fits 53 3 parse_table_843"
  unfolding parse_table_843_def by simp

lemma parse_table_844_fits: "row_fits 53 3 parse_table_844"
  unfolding parse_table_844_def by simp

lemma parse_table_845_fits: "row_fits 53 3 parse_table_845"
  unfolding parse_table_845_def by simp

lemma parse_table_846_fits: "row_fits 53 3 parse_table_846"
  unfolding parse_table_846_def by simp

lemma parse_table_847_fits: "row_fits 53 3 parse_table_847"
  unfolding parse_table_847_def by simp

lemma parse_table_848_fits: "row_fits 53 3 parse_table_848"
  unfolding parse_table_848_def by simp

lemma parse_table_849_fits: "row_fits 53 3 parse_table_849"
  unfolding parse_table_849_def by simp

lemma parse_table_850_fits: "row_fits 53 3 parse_table_850"
  unfolding parse_table_850_def by simp

lemma parse_table_851_fits: "row_fits 53 3 parse_table_851"
  unfolding parse_table_851_def by simp

lemma parse_table_852_fits: "row_fits 53 3 parse_table_852"
  unfolding parse_table_852_def by simp

lemma parse_table_853_fits: "row_fits 53 3 parse_table_853"
  unfolding parse_table_853_def by simp

lemma parse_table_854_fits: "row_fits 53 3 parse_table_854"
  unfolding parse_table_854_def by simp

lemma parse_table_855_fits: "row_fits 53 3 parse_table_855"
  unfolding parse_table_855_def by simp

lemma parse_table_856_fits: "row_fits 53 3 parse_table_856"
  unfolding parse_table_856_def by simp

lemma parse_table_857_fits: "row_fits 53 3 parse_table_857"
  unfolding parse_table_857_def by simp

lemma parse_table_858_fits: "row_fits 53 3 parse_table_858"
  unfolding parse_table_858_def by simp

lemma parse_table_859_fits: "row_fits 53 3 parse_table_859"
  unfolding parse_table_859_def by simp

lemma parse_table_860_fits: "row_fits 53 3 parse_table_860"
  unfolding parse_table_860_def by simp

lemma parse_table_861_fits: "row_fits 53 3 parse_table_861"
  unfolding parse_table_861_def by simp

lemma parse_table_862_fits: "row_fits 53 3 parse_table_862"
  unfolding parse_table_862_def by simp

lemma parse_table_863_fits: "row_fits 53 3 parse_table_863"
  unfolding parse_table_863_def by simp

lemma parse_table_864_fits: "row_fits 53 3 parse_table_864"
  unfolding parse_table_864_def by simp

lemma parse_table_865_fits: "row_fits 53 3 parse_table_865"
  unfolding parse_table_865_def by simp

lemma parse_table_866_fits: "row_fits 53 3 parse_table_866"
  unfolding parse_table_866_def by simp

lemma parse_table_867_fits: "row_fits 53 3 parse_table_867"
  unfolding parse_table_867_def by simp

lemma parse_table_868_fits: "row_fits 53 3 parse_table_868"
  unfolding parse_table_868_def by simp

lemma parse_table_869_fits: "row_fits 53 3 parse_table_869"
  unfolding parse_table_869_def by simp

lemma parse_table_870_fits: "row_fits 53 3 parse_table_870"
  unfolding parse_table_870_def by simp

lemma parse_table_871_fits: "row_fits 53 3 parse_table_871"
  unfolding parse_table_871_def by simp

lemma parse_table_872_fits: "row_fits 53 3 parse_table_872"
  unfolding parse_table_872_def by simp

lemma parse_table_873_fits: "row_fits 53 3 parse_table_873"
  unfolding parse_table_873_def by simp

lemma parse_table_874_fits: "row_fits 53 3 parse_table_874"
  unfolding parse_table_874_def by simp

lemma parse_table_875_fits: "row_fits 53 3 parse_table_875"
  unfolding parse_table_875_def by simp

lemma parse_table_876_fits: "row_fits 53 3 parse_table_876"
  unfolding parse_table_876_def by simp

lemma parse_table_877_fits: "row_fits 53 3 parse_table_877"
  unfolding parse_table_877_def by simp

lemma parse_table_878_fits: "row_fits 53 3 parse_table_878"
  unfolding parse_table_878_def by simp

lemma parse_table_879_fits: "row_fits 53 3 parse_table_879"
  unfolding parse_table_879_def by simp

lemma parse_table_880_fits: "row_fits 53 3 parse_table_880"
  unfolding parse_table_880_def by simp

lemma parse_table_881_fits: "row_fits 53 3 parse_table_881"
  unfolding parse_table_881_def by simp

lemma parse_table_882_fits: "row_fits 53 3 parse_table_882"
  unfolding parse_table_882_def by simp

lemma parse_table_883_fits: "row_fits 53 3 parse_table_883"
  unfolding parse_table_883_def by simp

lemma parse_table_884_fits: "row_fits 53 3 parse_table_884"
  unfolding parse_table_884_def by simp

lemma parse_table_885_fits: "row_fits 53 3 parse_table_885"
  unfolding parse_table_885_def by simp

lemma parse_table_886_fits: "row_fits 53 3 parse_table_886"
  unfolding parse_table_886_def by simp

lemma parse_table_887_fits: "row_fits 53 3 parse_table_887"
  unfolding parse_table_887_def by simp

lemma parse_table_888_fits: "row_fits 53 3 parse_table_888"
  unfolding parse_table_888_def by simp

lemma parse_table_889_fits: "row_fits 53 3 parse_table_889"
  unfolding parse_table_889_def by simp

lemma parse_table_890_fits: "row_fits 53 3 parse_table_890"
  unfolding parse_table_890_def by simp

lemma parse_table_891_fits: "row_fits 53 3 parse_table_891"
  unfolding parse_table_891_def by simp

lemma parse_table_892_fits: "row_fits 53 3 parse_table_892"
  unfolding parse_table_892_def by simp

lemma parse_table_893_fits: "row_fits 53 3 parse_table_893"
  unfolding parse_table_893_def by simp

lemma parse_table_894_fits: "row_fits 53 3 parse_table_894"
  unfolding parse_table_894_def by simp

lemma parse_table_895_fits: "row_fits 53 3 parse_table_895"
  unfolding parse_table_895_def by simp

lemma parse_table_896_fits: "row_fits 53 3 parse_table_896"
  unfolding parse_table_896_def by simp

lemma parse_table_897_fits: "row_fits 53 3 parse_table_897"
  unfolding parse_table_897_def by simp

lemma parse_table_898_fits: "row_fits 53 3 parse_table_898"
  unfolding parse_table_898_def by simp

lemma parse_table_899_fits: "row_fits 53 3 parse_table_899"
  unfolding parse_table_899_def by simp

declare table_row_check [simp del] One_nat_def [simp]

end
