(* ===== verification/Mojo_Parse_Row_Proofs_6.thy ===== *)
theory Mojo_Parse_Row_Proofs_6
  imports Mojo_Parse_Row_Checks Mojo_Parse_Rows_6
begin

text \<open>
  The rows of the parse states from 900 to 1049 fit, checked row by row.
\<close>

section \<open>Rows\<close>

declare table_row_check [simp] One_nat_def [simp del]

lemma parse_table_900_fits: "row_fits 53 3 parse_table_900"
  unfolding parse_table_900_def by simp

lemma parse_table_901_fits: "row_fits 53 3 parse_table_901"
  unfolding parse_table_901_def by simp

lemma parse_table_902_fits: "row_fits 53 3 parse_table_902"
  unfolding parse_table_902_def by simp

lemma parse_table_903_fits: "row_fits 53 3 parse_table_903"
  unfolding parse_table_903_def by simp

lemma parse_table_904_fits: "row_fits 53 3 parse_table_904"
  unfolding parse_table_904_def by simp

lemma parse_table_905_fits: "row_fits 53 3 parse_table_905"
  unfolding parse_table_905_def by simp

lemma parse_table_906_fits: "row_fits 53 3 parse_table_906"
  unfolding parse_table_906_def by simp

lemma parse_table_907_fits: "row_fits 53 3 parse_table_907"
  unfolding parse_table_907_def by simp

lemma parse_table_908_fits: "row_fits 53 3 parse_table_908"
  unfolding parse_table_908_def by simp

lemma parse_table_909_fits: "row_fits 53 3 parse_table_909"
  unfolding parse_table_909_def by simp

lemma parse_table_910_fits: "row_fits 53 3 parse_table_910"
  unfolding parse_table_910_def by simp

lemma parse_table_911_fits: "row_fits 53 3 parse_table_911"
  unfolding parse_table_911_def by simp

lemma parse_table_912_fits: "row_fits 53 3 parse_table_912"
  unfolding parse_table_912_def by simp

lemma parse_table_913_fits: "row_fits 53 3 parse_table_913"
  unfolding parse_table_913_def by simp

lemma parse_table_914_fits: "row_fits 53 3 parse_table_914"
  unfolding parse_table_914_def by simp

lemma parse_table_915_fits: "row_fits 53 3 parse_table_915"
  unfolding parse_table_915_def by simp

lemma parse_table_916_fits: "row_fits 53 3 parse_table_916"
  unfolding parse_table_916_def by simp

lemma parse_table_917_fits: "row_fits 53 3 parse_table_917"
  unfolding parse_table_917_def by simp

lemma parse_table_918_fits: "row_fits 53 3 parse_table_918"
  unfolding parse_table_918_def by simp

lemma parse_table_919_fits: "row_fits 53 3 parse_table_919"
  unfolding parse_table_919_def by simp

lemma parse_table_920_fits: "row_fits 53 3 parse_table_920"
  unfolding parse_table_920_def by simp

lemma parse_table_921_fits: "row_fits 53 2 parse_table_921"
  unfolding parse_table_921_def by simp

lemma parse_table_922_fits: "row_fits 53 3 parse_table_922"
  unfolding parse_table_922_def by simp

lemma parse_table_923_fits: "row_fits 53 2 parse_table_923"
  unfolding parse_table_923_def by simp

lemma parse_table_924_fits: "row_fits 53 3 parse_table_924"
  unfolding parse_table_924_def by simp

lemma parse_table_925_fits: "row_fits 53 3 parse_table_925"
  unfolding parse_table_925_def by simp

lemma parse_table_926_fits: "row_fits 53 3 parse_table_926"
  unfolding parse_table_926_def by simp

lemma parse_table_927_fits: "row_fits 53 3 parse_table_927"
  unfolding parse_table_927_def by simp

lemma parse_table_928_fits: "row_fits 53 3 parse_table_928"
  unfolding parse_table_928_def by simp

lemma parse_table_929_fits: "row_fits 4 4 parse_table_929"
  unfolding parse_table_929_def by simp

lemma parse_table_930_fits: "row_fits 4 4 parse_table_930"
  unfolding parse_table_930_def by simp

lemma parse_table_931_fits: "row_fits 4 4 parse_table_931"
  unfolding parse_table_931_def by simp

lemma parse_table_932_fits: "row_fits 4 4 parse_table_932"
  unfolding parse_table_932_def by simp

lemma parse_table_933_fits: "row_fits 4 4 parse_table_933"
  unfolding parse_table_933_def by simp

lemma parse_table_934_fits: "row_fits 4 4 parse_table_934"
  unfolding parse_table_934_def by simp

lemma parse_table_935_fits: "row_fits 4 4 parse_table_935"
  unfolding parse_table_935_def by simp

lemma parse_table_936_fits: "row_fits 4 4 parse_table_936"
  unfolding parse_table_936_def by simp

lemma parse_table_937_fits: "row_fits 4 4 parse_table_937"
  unfolding parse_table_937_def by simp

lemma parse_table_938_fits: "row_fits 4 4 parse_table_938"
  unfolding parse_table_938_def by simp

lemma parse_table_939_fits: "row_fits 4 4 parse_table_939"
  unfolding parse_table_939_def by simp

lemma parse_table_940_fits: "row_fits 4 4 parse_table_940"
  unfolding parse_table_940_def by simp

lemma parse_table_941_fits: "row_fits 4 4 parse_table_941"
  unfolding parse_table_941_def by simp

lemma parse_table_942_fits: "row_fits 4 4 parse_table_942"
  unfolding parse_table_942_def by simp

lemma parse_table_943_fits: "row_fits 4 4 parse_table_943"
  unfolding parse_table_943_def by simp

lemma parse_table_944_fits: "row_fits 4 4 parse_table_944"
  unfolding parse_table_944_def by simp

lemma parse_table_945_fits: "row_fits 4 4 parse_table_945"
  unfolding parse_table_945_def by simp

lemma parse_table_946_fits: "row_fits 4 4 parse_table_946"
  unfolding parse_table_946_def by simp

lemma parse_table_947_fits: "row_fits 4 4 parse_table_947"
  unfolding parse_table_947_def by simp

lemma parse_table_948_fits: "row_fits 4 4 parse_table_948"
  unfolding parse_table_948_def by simp

lemma parse_table_949_fits: "row_fits 4 4 parse_table_949"
  unfolding parse_table_949_def by simp

lemma parse_table_950_fits: "row_fits 4 4 parse_table_950"
  unfolding parse_table_950_def by simp

lemma parse_table_951_fits: "row_fits 4 4 parse_table_951"
  unfolding parse_table_951_def by simp

lemma parse_table_952_fits: "row_fits 4 4 parse_table_952"
  unfolding parse_table_952_def by simp

lemma parse_table_953_fits: "row_fits 4 4 parse_table_953"
  unfolding parse_table_953_def by simp

lemma parse_table_954_fits: "row_fits 4 4 parse_table_954"
  unfolding parse_table_954_def by simp

lemma parse_table_955_fits: "row_fits 4 4 parse_table_955"
  unfolding parse_table_955_def by simp

lemma parse_table_956_fits: "row_fits 4 4 parse_table_956"
  unfolding parse_table_956_def by simp

lemma parse_table_957_fits: "row_fits 4 4 parse_table_957"
  unfolding parse_table_957_def by simp

lemma parse_table_958_fits: "row_fits 4 4 parse_table_958"
  unfolding parse_table_958_def by simp

lemma parse_table_959_fits: "row_fits 4 4 parse_table_959"
  unfolding parse_table_959_def by simp

lemma parse_table_960_fits: "row_fits 4 4 parse_table_960"
  unfolding parse_table_960_def by simp

lemma parse_table_961_fits: "row_fits 4 4 parse_table_961"
  unfolding parse_table_961_def by simp

lemma parse_table_962_fits: "row_fits 4 4 parse_table_962"
  unfolding parse_table_962_def by simp

lemma parse_table_963_fits: "row_fits 4 4 parse_table_963"
  unfolding parse_table_963_def by simp

lemma parse_table_964_fits: "row_fits 4 4 parse_table_964"
  unfolding parse_table_964_def by simp

lemma parse_table_965_fits: "row_fits 4 4 parse_table_965"
  unfolding parse_table_965_def by simp

lemma parse_table_966_fits: "row_fits 4 4 parse_table_966"
  unfolding parse_table_966_def by simp

lemma parse_table_967_fits: "row_fits 4 4 parse_table_967"
  unfolding parse_table_967_def by simp

lemma parse_table_968_fits: "row_fits 4 4 parse_table_968"
  unfolding parse_table_968_def by simp

lemma parse_table_969_fits: "row_fits 4 4 parse_table_969"
  unfolding parse_table_969_def by simp

lemma parse_table_970_fits: "row_fits 4 4 parse_table_970"
  unfolding parse_table_970_def by simp

lemma parse_table_971_fits: "row_fits 4 4 parse_table_971"
  unfolding parse_table_971_def by simp

lemma parse_table_972_fits: "row_fits 4 4 parse_table_972"
  unfolding parse_table_972_def by simp

lemma parse_table_973_fits: "row_fits 4 4 parse_table_973"
  unfolding parse_table_973_def by simp

lemma parse_table_974_fits: "row_fits 4 4 parse_table_974"
  unfolding parse_table_974_def by simp

lemma parse_table_975_fits: "row_fits 4 4 parse_table_975"
  unfolding parse_table_975_def by simp

lemma parse_table_976_fits: "row_fits 4 4 parse_table_976"
  unfolding parse_table_976_def by simp

lemma parse_table_977_fits: "row_fits 4 4 parse_table_977"
  unfolding parse_table_977_def by simp

lemma parse_table_978_fits: "row_fits 4 4 parse_table_978"
  unfolding parse_table_978_def by simp

lemma parse_table_979_fits: "row_fits 4 4 parse_table_979"
  unfolding parse_table_979_def by simp

lemma parse_table_980_fits: "row_fits 4 4 parse_table_980"
  unfolding parse_table_980_def by simp

lemma parse_table_981_fits: "row_fits 4 4 parse_table_981"
  unfolding parse_table_981_def by simp

lemma parse_table_982_fits: "row_fits 4 4 parse_table_982"
  unfolding parse_table_982_def by simp

lemma parse_table_983_fits: "row_fits 4 4 parse_table_983"
  unfolding parse_table_983_def by simp

lemma parse_table_984_fits: "row_fits 4 4 parse_table_984"
  unfolding parse_table_984_def by simp

lemma parse_table_985_fits: "row_fits 4 4 parse_table_985"
  unfolding parse_table_985_def by simp

lemma parse_table_986_fits: "row_fits 4 4 parse_table_986"
  unfolding parse_table_986_def by simp

lemma parse_table_987_fits: "row_fits 4 4 parse_table_987"
  unfolding parse_table_987_def by simp

lemma parse_table_988_fits: "row_fits 4 4 parse_table_988"
  unfolding parse_table_988_def by simp

lemma parse_table_989_fits: "row_fits 4 4 parse_table_989"
  unfolding parse_table_989_def by simp

lemma parse_table_990_fits: "row_fits 4 4 parse_table_990"
  unfolding parse_table_990_def by simp

lemma parse_table_991_fits: "row_fits 4 4 parse_table_991"
  unfolding parse_table_991_def by simp

lemma parse_table_992_fits: "row_fits 4 4 parse_table_992"
  unfolding parse_table_992_def by simp

lemma parse_table_993_fits: "row_fits 4 4 parse_table_993"
  unfolding parse_table_993_def by simp

lemma parse_table_994_fits: "row_fits 4 4 parse_table_994"
  unfolding parse_table_994_def by simp

lemma parse_table_995_fits: "row_fits 4 4 parse_table_995"
  unfolding parse_table_995_def by simp

lemma parse_table_996_fits: "row_fits 4 4 parse_table_996"
  unfolding parse_table_996_def by simp

lemma parse_table_997_fits: "row_fits 4 4 parse_table_997"
  unfolding parse_table_997_def by simp

lemma parse_table_998_fits: "row_fits 4 4 parse_table_998"
  unfolding parse_table_998_def by simp

lemma parse_table_999_fits: "row_fits 4 4 parse_table_999"
  unfolding parse_table_999_def by simp

lemma parse_table_1000_fits: "row_fits 4 4 parse_table_1000"
  unfolding parse_table_1000_def by simp

lemma parse_table_1001_fits: "row_fits 4 4 parse_table_1001"
  unfolding parse_table_1001_def by simp

lemma parse_table_1002_fits: "row_fits 4 4 parse_table_1002"
  unfolding parse_table_1002_def by simp

lemma parse_table_1003_fits: "row_fits 4 4 parse_table_1003"
  unfolding parse_table_1003_def by simp

lemma parse_table_1004_fits: "row_fits 4 4 parse_table_1004"
  unfolding parse_table_1004_def by simp

lemma parse_table_1005_fits: "row_fits 4 4 parse_table_1005"
  unfolding parse_table_1005_def by simp

lemma parse_table_1006_fits: "row_fits 4 4 parse_table_1006"
  unfolding parse_table_1006_def by simp

lemma parse_table_1007_fits: "row_fits 4 4 parse_table_1007"
  unfolding parse_table_1007_def by simp

lemma parse_table_1008_fits: "row_fits 4 4 parse_table_1008"
  unfolding parse_table_1008_def by simp

lemma parse_table_1009_fits: "row_fits 4 4 parse_table_1009"
  unfolding parse_table_1009_def by simp

lemma parse_table_1010_fits: "row_fits 4 4 parse_table_1010"
  unfolding parse_table_1010_def by simp

lemma parse_table_1011_fits: "row_fits 4 4 parse_table_1011"
  unfolding parse_table_1011_def by simp

lemma parse_table_1012_fits: "row_fits 4 4 parse_table_1012"
  unfolding parse_table_1012_def by simp

lemma parse_table_1013_fits: "row_fits 4 4 parse_table_1013"
  unfolding parse_table_1013_def by simp

lemma parse_table_1014_fits: "row_fits 4 4 parse_table_1014"
  unfolding parse_table_1014_def by simp

lemma parse_table_1015_fits: "row_fits 4 4 parse_table_1015"
  unfolding parse_table_1015_def by simp

lemma parse_table_1016_fits: "row_fits 4 4 parse_table_1016"
  unfolding parse_table_1016_def by simp

lemma parse_table_1017_fits: "row_fits 4 4 parse_table_1017"
  unfolding parse_table_1017_def by simp

lemma parse_table_1018_fits: "row_fits 4 4 parse_table_1018"
  unfolding parse_table_1018_def by simp

lemma parse_table_1019_fits: "row_fits 4 4 parse_table_1019"
  unfolding parse_table_1019_def by simp

lemma parse_table_1020_fits: "row_fits 4 4 parse_table_1020"
  unfolding parse_table_1020_def by simp

lemma parse_table_1021_fits: "row_fits 4 4 parse_table_1021"
  unfolding parse_table_1021_def by simp

lemma parse_table_1022_fits: "row_fits 4 4 parse_table_1022"
  unfolding parse_table_1022_def by simp

lemma parse_table_1023_fits: "row_fits 4 4 parse_table_1023"
  unfolding parse_table_1023_def by simp

lemma parse_table_1024_fits: "row_fits 4 4 parse_table_1024"
  unfolding parse_table_1024_def by simp

lemma parse_table_1025_fits: "row_fits 4 4 parse_table_1025"
  unfolding parse_table_1025_def by simp

lemma parse_table_1026_fits: "row_fits 4 4 parse_table_1026"
  unfolding parse_table_1026_def by simp

lemma parse_table_1027_fits: "row_fits 4 4 parse_table_1027"
  unfolding parse_table_1027_def by simp

lemma parse_table_1028_fits: "row_fits 4 4 parse_table_1028"
  unfolding parse_table_1028_def by simp

lemma parse_table_1029_fits: "row_fits 4 4 parse_table_1029"
  unfolding parse_table_1029_def by simp

lemma parse_table_1030_fits: "row_fits 4 4 parse_table_1030"
  unfolding parse_table_1030_def by simp

lemma parse_table_1031_fits: "row_fits 4 4 parse_table_1031"
  unfolding parse_table_1031_def by simp

lemma parse_table_1032_fits: "row_fits 4 4 parse_table_1032"
  unfolding parse_table_1032_def by simp

lemma parse_table_1033_fits: "row_fits 4 4 parse_table_1033"
  unfolding parse_table_1033_def by simp

lemma parse_table_1034_fits: "row_fits 4 4 parse_table_1034"
  unfolding parse_table_1034_def by simp

lemma parse_table_1035_fits: "row_fits 4 4 parse_table_1035"
  unfolding parse_table_1035_def by simp

lemma parse_table_1036_fits: "row_fits 4 4 parse_table_1036"
  unfolding parse_table_1036_def by simp

lemma parse_table_1037_fits: "row_fits 4 4 parse_table_1037"
  unfolding parse_table_1037_def by simp

lemma parse_table_1038_fits: "row_fits 4 4 parse_table_1038"
  unfolding parse_table_1038_def by simp

lemma parse_table_1039_fits: "row_fits 4 4 parse_table_1039"
  unfolding parse_table_1039_def by simp

lemma parse_table_1040_fits: "row_fits 4 4 parse_table_1040"
  unfolding parse_table_1040_def by simp

lemma parse_table_1041_fits: "row_fits 4 4 parse_table_1041"
  unfolding parse_table_1041_def by simp

lemma parse_table_1042_fits: "row_fits 4 4 parse_table_1042"
  unfolding parse_table_1042_def by simp

lemma parse_table_1043_fits: "row_fits 4 4 parse_table_1043"
  unfolding parse_table_1043_def by simp

lemma parse_table_1044_fits: "row_fits 4 4 parse_table_1044"
  unfolding parse_table_1044_def by simp

lemma parse_table_1045_fits: "row_fits 4 4 parse_table_1045"
  unfolding parse_table_1045_def by simp

lemma parse_table_1046_fits: "row_fits 4 4 parse_table_1046"
  unfolding parse_table_1046_def by simp

lemma parse_table_1047_fits: "row_fits 4 4 parse_table_1047"
  unfolding parse_table_1047_def by simp

lemma parse_table_1048_fits: "row_fits 4 4 parse_table_1048"
  unfolding parse_table_1048_def by simp

lemma parse_table_1049_fits: "row_fits 4 4 parse_table_1049"
  unfolding parse_table_1049_def by simp

declare table_row_check [simp del] One_nat_def [simp]

end
