(* ===== verification/Mojo_Parse_Row_Proofs_7.thy ===== *)
theory Mojo_Parse_Row_Proofs_7
  imports Mojo_Parse_Row_Checks Mojo_Parse_Rows_7
begin

text \<open>
  The rows of the parse states from 1050 to 1199 fit, checked row by row.
\<close>

section \<open>Rows\<close>

declare table_row_check [simp] One_nat_def [simp del]

lemma parse_table_1050_fits: "row_fits 4 4 parse_table_1050"
  unfolding parse_table_1050_def by simp

lemma parse_table_1051_fits: "row_fits 4 4 parse_table_1051"
  unfolding parse_table_1051_def by simp

lemma parse_table_1052_fits: "row_fits 4 4 parse_table_1052"
  unfolding parse_table_1052_def by simp

lemma parse_table_1053_fits: "row_fits 4 4 parse_table_1053"
  unfolding parse_table_1053_def by simp

lemma parse_table_1054_fits: "row_fits 4 4 parse_table_1054"
  unfolding parse_table_1054_def by simp

lemma parse_table_1055_fits: "row_fits 4 4 parse_table_1055"
  unfolding parse_table_1055_def by simp

lemma parse_table_1056_fits: "row_fits 4 4 parse_table_1056"
  unfolding parse_table_1056_def by simp

lemma parse_table_1057_fits: "row_fits 4 4 parse_table_1057"
  unfolding parse_table_1057_def by simp

lemma parse_table_1058_fits: "row_fits 4 4 parse_table_1058"
  unfolding parse_table_1058_def by simp

lemma parse_table_1059_fits: "row_fits 4 4 parse_table_1059"
  unfolding parse_table_1059_def by simp

lemma parse_table_1060_fits: "row_fits 4 4 parse_table_1060"
  unfolding parse_table_1060_def by simp

lemma parse_table_1061_fits: "row_fits 4 4 parse_table_1061"
  unfolding parse_table_1061_def by simp

lemma parse_table_1062_fits: "row_fits 4 4 parse_table_1062"
  unfolding parse_table_1062_def by simp

lemma parse_table_1063_fits: "row_fits 4 4 parse_table_1063"
  unfolding parse_table_1063_def by simp

lemma parse_table_1064_fits: "row_fits 4 4 parse_table_1064"
  unfolding parse_table_1064_def by simp

lemma parse_table_1065_fits: "row_fits 4 4 parse_table_1065"
  unfolding parse_table_1065_def by simp

lemma parse_table_1066_fits: "row_fits 4 4 parse_table_1066"
  unfolding parse_table_1066_def by simp

lemma parse_table_1067_fits: "row_fits 4 4 parse_table_1067"
  unfolding parse_table_1067_def by simp

lemma parse_table_1068_fits: "row_fits 4 4 parse_table_1068"
  unfolding parse_table_1068_def by simp

lemma parse_table_1069_fits: "row_fits 4 4 parse_table_1069"
  unfolding parse_table_1069_def by simp

lemma parse_table_1070_fits: "row_fits 4 4 parse_table_1070"
  unfolding parse_table_1070_def by simp

lemma parse_table_1071_fits: "row_fits 4 4 parse_table_1071"
  unfolding parse_table_1071_def by simp

lemma parse_table_1072_fits: "row_fits 4 4 parse_table_1072"
  unfolding parse_table_1072_def by simp

lemma parse_table_1073_fits: "row_fits 4 4 parse_table_1073"
  unfolding parse_table_1073_def by simp

lemma parse_table_1074_fits: "row_fits 4 4 parse_table_1074"
  unfolding parse_table_1074_def by simp

lemma parse_table_1075_fits: "row_fits 4 4 parse_table_1075"
  unfolding parse_table_1075_def by simp

lemma parse_table_1076_fits: "row_fits 4 4 parse_table_1076"
  unfolding parse_table_1076_def by simp

lemma parse_table_1077_fits: "row_fits 4 4 parse_table_1077"
  unfolding parse_table_1077_def by simp

lemma parse_table_1078_fits: "row_fits 4 4 parse_table_1078"
  unfolding parse_table_1078_def by simp

lemma parse_table_1079_fits: "row_fits 4 4 parse_table_1079"
  unfolding parse_table_1079_def by simp

lemma parse_table_1080_fits: "row_fits 4 4 parse_table_1080"
  unfolding parse_table_1080_def by simp

lemma parse_table_1081_fits: "row_fits 4 4 parse_table_1081"
  unfolding parse_table_1081_def by simp

lemma parse_table_1082_fits: "row_fits 4 4 parse_table_1082"
  unfolding parse_table_1082_def by simp

lemma parse_table_1083_fits: "row_fits 4 4 parse_table_1083"
  unfolding parse_table_1083_def by simp

lemma parse_table_1084_fits: "row_fits 4 4 parse_table_1084"
  unfolding parse_table_1084_def by simp

lemma parse_table_1085_fits: "row_fits 4 4 parse_table_1085"
  unfolding parse_table_1085_def by simp

lemma parse_table_1086_fits: "row_fits 4 4 parse_table_1086"
  unfolding parse_table_1086_def by simp

lemma parse_table_1087_fits: "row_fits 4 4 parse_table_1087"
  unfolding parse_table_1087_def by simp

lemma parse_table_1088_fits: "row_fits 4 4 parse_table_1088"
  unfolding parse_table_1088_def by simp

lemma parse_table_1089_fits: "row_fits 4 4 parse_table_1089"
  unfolding parse_table_1089_def by simp

lemma parse_table_1090_fits: "row_fits 4 4 parse_table_1090"
  unfolding parse_table_1090_def by simp

lemma parse_table_1091_fits: "row_fits 4 4 parse_table_1091"
  unfolding parse_table_1091_def by simp

lemma parse_table_1092_fits: "row_fits 4 4 parse_table_1092"
  unfolding parse_table_1092_def by simp

lemma parse_table_1093_fits: "row_fits 4 4 parse_table_1093"
  unfolding parse_table_1093_def by simp

lemma parse_table_1094_fits: "row_fits 4 4 parse_table_1094"
  unfolding parse_table_1094_def by simp

lemma parse_table_1095_fits: "row_fits 4 4 parse_table_1095"
  unfolding parse_table_1095_def by simp

lemma parse_table_1096_fits: "row_fits 4 4 parse_table_1096"
  unfolding parse_table_1096_def by simp

lemma parse_table_1097_fits: "row_fits 4 4 parse_table_1097"
  unfolding parse_table_1097_def by simp

lemma parse_table_1098_fits: "row_fits 4 4 parse_table_1098"
  unfolding parse_table_1098_def by simp

lemma parse_table_1099_fits: "row_fits 4 4 parse_table_1099"
  unfolding parse_table_1099_def by simp

lemma parse_table_1100_fits: "row_fits 4 4 parse_table_1100"
  unfolding parse_table_1100_def by simp

lemma parse_table_1101_fits: "row_fits 4 4 parse_table_1101"
  unfolding parse_table_1101_def by simp

lemma parse_table_1102_fits: "row_fits 4 4 parse_table_1102"
  unfolding parse_table_1102_def by simp

lemma parse_table_1103_fits: "row_fits 4 4 parse_table_1103"
  unfolding parse_table_1103_def by simp

lemma parse_table_1104_fits: "row_fits 4 4 parse_table_1104"
  unfolding parse_table_1104_def by simp

lemma parse_table_1105_fits: "row_fits 4 4 parse_table_1105"
  unfolding parse_table_1105_def by simp

lemma parse_table_1106_fits: "row_fits 4 4 parse_table_1106"
  unfolding parse_table_1106_def by simp

lemma parse_table_1107_fits: "row_fits 4 4 parse_table_1107"
  unfolding parse_table_1107_def by simp

lemma parse_table_1108_fits: "row_fits 4 4 parse_table_1108"
  unfolding parse_table_1108_def by simp

lemma parse_table_1109_fits: "row_fits 4 4 parse_table_1109"
  unfolding parse_table_1109_def by simp

lemma parse_table_1110_fits: "row_fits 4 4 parse_table_1110"
  unfolding parse_table_1110_def by simp

lemma parse_table_1111_fits: "row_fits 4 4 parse_table_1111"
  unfolding parse_table_1111_def by simp

lemma parse_table_1112_fits: "row_fits 4 4 parse_table_1112"
  unfolding parse_table_1112_def by simp

lemma parse_table_1113_fits: "row_fits 4 4 parse_table_1113"
  unfolding parse_table_1113_def by simp

lemma parse_table_1114_fits: "row_fits 4 4 parse_table_1114"
  unfolding parse_table_1114_def by simp

lemma parse_table_1115_fits: "row_fits 4 4 parse_table_1115"
  unfolding parse_table_1115_def by simp

lemma parse_table_1116_fits: "row_fits 4 4 parse_table_1116"
  unfolding parse_table_1116_def by simp

lemma parse_table_1117_fits: "row_fits 4 4 parse_table_1117"
  unfolding parse_table_1117_def by simp

lemma parse_table_1118_fits: "row_fits 4 4 parse_table_1118"
  unfolding parse_table_1118_def by simp

lemma parse_table_1119_fits: "row_fits 4 4 parse_table_1119"
  unfolding parse_table_1119_def by simp

lemma parse_table_1120_fits: "row_fits 4 4 parse_table_1120"
  unfolding parse_table_1120_def by simp

lemma parse_table_1121_fits: "row_fits 4 4 parse_table_1121"
  unfolding parse_table_1121_def by simp

lemma parse_table_1122_fits: "row_fits 4 4 parse_table_1122"
  unfolding parse_table_1122_def by simp

lemma parse_table_1123_fits: "row_fits 4 4 parse_table_1123"
  unfolding parse_table_1123_def by simp

lemma parse_table_1124_fits: "row_fits 4 4 parse_table_1124"
  unfolding parse_table_1124_def by simp

lemma parse_table_1125_fits: "row_fits 4 4 parse_table_1125"
  unfolding parse_table_1125_def by simp

lemma parse_table_1126_fits: "row_fits 4 4 parse_table_1126"
  unfolding parse_table_1126_def by simp

lemma parse_table_1127_fits: "row_fits 4 4 parse_table_1127"
  unfolding parse_table_1127_def by simp

lemma parse_table_1128_fits: "row_fits 4 4 parse_table_1128"
  unfolding parse_table_1128_def by simp

lemma parse_table_1129_fits: "row_fits 4 4 parse_table_1129"
  unfolding parse_table_1129_def by simp

lemma parse_table_1130_fits: "row_fits 4 4 parse_table_1130"
  unfolding parse_table_1130_def by simp

lemma parse_table_1131_fits: "row_fits 4 4 parse_table_1131"
  unfolding parse_table_1131_def by simp

lemma parse_table_1132_fits: "row_fits 4 4 parse_table_1132"
  unfolding parse_table_1132_def by simp

lemma parse_table_1133_fits: "row_fits 4 4 parse_table_1133"
  unfolding parse_table_1133_def by simp

lemma parse_table_1134_fits: "row_fits 4 4 parse_table_1134"
  unfolding parse_table_1134_def by simp

lemma parse_table_1135_fits: "row_fits 4 4 parse_table_1135"
  unfolding parse_table_1135_def by simp

lemma parse_table_1136_fits: "row_fits 4 4 parse_table_1136"
  unfolding parse_table_1136_def by simp

lemma parse_table_1137_fits: "row_fits 4 4 parse_table_1137"
  unfolding parse_table_1137_def by simp

lemma parse_table_1138_fits: "row_fits 4 4 parse_table_1138"
  unfolding parse_table_1138_def by simp

lemma parse_table_1139_fits: "row_fits 4 4 parse_table_1139"
  unfolding parse_table_1139_def by simp

lemma parse_table_1140_fits: "row_fits 4 4 parse_table_1140"
  unfolding parse_table_1140_def by simp

lemma parse_table_1141_fits: "row_fits 4 4 parse_table_1141"
  unfolding parse_table_1141_def by simp

lemma parse_table_1142_fits: "row_fits 4 4 parse_table_1142"
  unfolding parse_table_1142_def by simp

lemma parse_table_1143_fits: "row_fits 4 4 parse_table_1143"
  unfolding parse_table_1143_def by simp

lemma parse_table_1144_fits: "row_fits 4 4 parse_table_1144"
  unfolding parse_table_1144_def by simp

lemma parse_table_1145_fits: "row_fits 4 4 parse_table_1145"
  unfolding parse_table_1145_def by simp

lemma parse_table_1146_fits: "row_fits 4 4 parse_table_1146"
  unfolding parse_table_1146_def by simp

lemma parse_table_1147_fits: "row_fits 4 4 parse_table_1147"
  unfolding parse_table_1147_def by simp

lemma parse_table_1148_fits: "row_fits 4 4 parse_table_1148"
  unfolding parse_table_1148_def by simp

lemma parse_table_1149_fits: "row_fits 4 4 parse_table_1149"
  unfolding parse_table_1149_def by simp

lemma parse_table_1150_fits: "row_fits 4 4 parse_table_1150"
  unfolding parse_table_1150_def by simp

lemma parse_table_1151_fits: "row_fits 4 4 parse_table_1151"
  unfolding parse_table_1151_def by simp

lemma parse_table_1152_fits: "row_fits 4 4 parse_table_1152"
  unfolding parse_table_1152_def by simp

lemma parse_table_1153_fits: "row_fits 4 4 parse_table_1153"
  unfolding parse_table_1153_def by simp

lemma parse_table_1154_fits: "row_fits 4 4 parse_table_1154"
  unfolding parse_table_1154_def by simp

lemma parse_table_1155_fits: "row_fits 4 4 parse_table_1155"
  unfolding parse_table_1155_def by simp

lemma parse_table_1156_fits: "row_fits 4 4 parse_table_1156"
  unfolding parse_table_1156_def by simp

lemma parse_table_1157_fits: "row_fits 4 4 parse_table_1157"
  unfolding parse_table_1157_def by simp

lemma parse_table_1158_fits: "row_fits 4 4 parse_table_1158"
  unfolding parse_table_1158_def by simp

lemma parse_table_1159_fits: "row_fits 4 4 parse_table_1159"
  unfolding parse_table_1159_def by simp

lemma parse_table_1160_fits: "row_fits 4 4 parse_table_1160"
  unfolding parse_table_1160_def by simp

lemma parse_table_1161_fits: "row_fits 4 4 parse_table_1161"
  unfolding parse_table_1161_def by simp

lemma parse_table_1162_fits: "row_fits 4 4 parse_table_1162"
  unfolding parse_table_1162_def by simp

lemma parse_table_1163_fits: "row_fits 4 4 parse_table_1163"
  unfolding parse_table_1163_def by simp

lemma parse_table_1164_fits: "row_fits 4 4 parse_table_1164"
  unfolding parse_table_1164_def by simp

lemma parse_table_1165_fits: "row_fits 4 4 parse_table_1165"
  unfolding parse_table_1165_def by simp

lemma parse_table_1166_fits: "row_fits 4 4 parse_table_1166"
  unfolding parse_table_1166_def by simp

lemma parse_table_1167_fits: "row_fits 4 4 parse_table_1167"
  unfolding parse_table_1167_def by simp

lemma parse_table_1168_fits: "row_fits 4 4 parse_table_1168"
  unfolding parse_table_1168_def by simp

lemma parse_table_1169_fits: "row_fits 4 4 parse_table_1169"
  unfolding parse_table_1169_def by simp

lemma parse_table_1170_fits: "row_fits 4 4 parse_table_1170"
  unfolding parse_table_1170_def by simp

lemma parse_table_1171_fits: "row_fits 4 4 parse_table_1171"
  unfolding parse_table_1171_def by simp

lemma parse_table_1172_fits: "row_fits 4 4 parse_table_1172"
  unfolding parse_table_1172_def by simp

lemma parse_table_1173_fits: "row_fits 4 4 parse_table_1173"
  unfolding parse_table_1173_def by simp

lemma parse_table_1174_fits: "row_fits 4 4 parse_table_1174"
  unfolding parse_table_1174_def by simp

lemma parse_table_1175_fits: "row_fits 4 4 parse_table_1175"
  unfolding parse_table_1175_def by simp

lemma parse_table_1176_fits: "row_fits 4 4 parse_table_1176"
  unfolding parse_table_1176_def by simp

lemma parse_table_1177_fits: "row_fits 4 4 parse_table_1177"
  unfolding parse_table_1177_def by simp

lemma parse_table_1178_fits: "row_fits 4 4 parse_table_1178"
  unfolding parse_table_1178_def by simp

lemma parse_table_1179_fits: "row_fits 4 4 parse_table_1179"
  unfolding parse_table_1179_def by simp

lemma parse_table_1180_fits: "row_fits 4 4 parse_table_1180"
  unfolding parse_table_1180_def by simp

lemma parse_table_1181_fits: "row_fits 4 4 parse_table_1181"
  unfolding parse_table_1181_def by simp

lemma parse_table_1182_fits: "row_fits 4 4 parse_table_1182"
  unfolding parse_table_1182_def by simp

lemma parse_table_1183_fits: "row_fits 4 4 parse_table_1183"
  unfolding parse_table_1183_def by simp

lemma parse_table_1184_fits: "row_fits 4 4 parse_table_1184"
  unfolding parse_table_1184_def by simp

lemma parse_table_1185_fits: "row_fits 4 4 parse_table_1185"
  unfolding parse_table_1185_def by simp

lemma parse_table_1186_fits: "row_fits 4 4 parse_table_1186"
  unfolding parse_table_1186_def by simp

lemma parse_table_1187_fits: "row_fits 4 4 parse_table_1187"
  unfolding parse_table_1187_def by simp

lemma parse_table_1188_fits: "row_fits 4 4 parse_table_1188"
  unfolding parse_table_1188_def by simp

lemma parse_table_1189_fits: "row_fits 4 4 parse_table_1189"
  unfolding parse_table_1189_def by simp

lemma parse_table_1190_fits: "row_fits 4 4 parse_table_1190"
  unfolding parse_table_1190_def by simp

lemma parse_table_1191_fits: "row_fits 4 4 parse_table_1191"
  unfolding parse_table_1191_def by simp

lemma parse_table_1192_fits: "row_fits 4 4 parse_table_1192"
  unfolding parse_table_1192_def by simp

lemma parse_table_1193_fits: "row_fits 4 4 parse_table_1193"
  unfolding parse_table_1193_def by simp

lemma parse_table_1194_fits: "row_fits 4 4 parse_table_1194"
  unfolding parse_table_1194_def by simp

lemma parse_table_1195_fits: "row_fits 4 4 parse_table_1195"
  unfolding parse_table_1195_def by simp

lemma parse_table_1196_fits: "row_fits 4 4 parse_table_1196"
  unfolding parse_table_1196_def by simp

lemma parse_table_1197_fits: "row_fits 4 4 parse_table_1197"
  unfolding parse_table_1197_def by simp

lemma parse_table_1198_fits: "row_fits 4 4 parse_table_1198"
  unfolding parse_table_1198_def by simp

lemma parse_table_1199_fits: "row_fits 4 4 parse_table_1199"
  unfolding parse_table_1199_def by simp

declare table_row_check [simp del] One_nat_def [simp]

end
