(* ===== verification/Mojo_Parse_Row_Proofs_8.thy ===== *)
theory Mojo_Parse_Row_Proofs_8
  imports Mojo_Parse_Row_Checks Mojo_Parse_Rows_8
begin

text \<open>
  The rows of the parse states from 1200 to 1278 fit, checked row by row.
\<close>

section \<open>Rows\<close>

declare table_row_check [simp] One_nat_def [simp del]

lemma parse_table_1200_fits: "row_fits 4 4 parse_table_1200"
  unfolding parse_table_1200_def by simp

lemma parse_table_1201_fits: "row_fits 4 4 parse_table_1201"
  unfolding parse_table_1201_def by simp

lemma parse_table_1202_fits: "row_fits 4 4 parse_table_1202"
  unfolding parse_table_1202_def by simp

lemma parse_table_1203_fits: "row_fits 4 4 parse_table_1203"
  unfolding parse_table_1203_def by simp

lemma parse_table_1204_fits: "row_fits 4 4 parse_table_1204"
  unfolding parse_table_1204_def by simp

lemma parse_table_1205_fits: "row_fits 4 4 parse_table_1205"
  unfolding parse_table_1205_def by simp

lemma parse_table_1206_fits: "row_fits 4 4 parse_table_1206"
  unfolding parse_table_1206_def by simp

lemma parse_table_1207_fits: "row_fits 4 4 parse_table_1207"
  unfolding parse_table_1207_def by simp

lemma parse_table_1208_fits: "row_fits 4 4 parse_table_1208"
  unfolding parse_table_1208_def by simp

lemma parse_table_1209_fits: "row_fits 4 4 parse_table_1209"
  unfolding parse_table_1209_def by simp

lemma parse_table_1210_fits: "row_fits 4 4 parse_table_1210"
  unfolding parse_table_1210_def by simp

lemma parse_table_1211_fits: "row_fits 4 4 parse_table_1211"
  unfolding parse_table_1211_def by simp

lemma parse_table_1212_fits: "row_fits 4 4 parse_table_1212"
  unfolding parse_table_1212_def by simp

lemma parse_table_1213_fits: "row_fits 4 4 parse_table_1213"
  unfolding parse_table_1213_def by simp

lemma parse_table_1214_fits: "row_fits 5 5 parse_table_1214"
  unfolding parse_table_1214_def by simp

lemma parse_table_1215_fits: "row_fits 4 4 parse_table_1215"
  unfolding parse_table_1215_def by simp

lemma parse_table_1216_fits: "row_fits 4 4 parse_table_1216"
  unfolding parse_table_1216_def by simp

lemma parse_table_1217_fits: "row_fits 4 4 parse_table_1217"
  unfolding parse_table_1217_def by simp

lemma parse_table_1218_fits: "row_fits 5 5 parse_table_1218"
  unfolding parse_table_1218_def by simp

lemma parse_table_1219_fits: "row_fits 5 5 parse_table_1219"
  unfolding parse_table_1219_def by simp

lemma parse_table_1220_fits: "row_fits 53 4 parse_table_1220"
  unfolding parse_table_1220_def by simp

lemma parse_table_1221_fits: "row_fits 5 5 parse_table_1221"
  unfolding parse_table_1221_def by simp

lemma parse_table_1222_fits: "row_fits 53 4 parse_table_1222"
  unfolding parse_table_1222_def by simp

lemma parse_table_1223_fits: "row_fits 53 4 parse_table_1223"
  unfolding parse_table_1223_def by simp

lemma parse_table_1224_fits: "row_fits 53 4 parse_table_1224"
  unfolding parse_table_1224_def by simp

lemma parse_table_1225_fits: "row_fits 53 4 parse_table_1225"
  unfolding parse_table_1225_def by simp

lemma parse_table_1226_fits: "row_fits 53 4 parse_table_1226"
  unfolding parse_table_1226_def by simp

lemma parse_table_1227_fits: "row_fits 53 4 parse_table_1227"
  unfolding parse_table_1227_def by simp

lemma parse_table_1228_fits: "row_fits 53 4 parse_table_1228"
  unfolding parse_table_1228_def by simp

lemma parse_table_1229_fits: "row_fits 53 4 parse_table_1229"
  unfolding parse_table_1229_def by simp

lemma parse_table_1230_fits: "row_fits 53 4 parse_table_1230"
  unfolding parse_table_1230_def by simp

lemma parse_table_1231_fits: "row_fits 53 4 parse_table_1231"
  unfolding parse_table_1231_def by simp

lemma parse_table_1232_fits: "row_fits 53 4 parse_table_1232"
  unfolding parse_table_1232_def by simp

lemma parse_table_1233_fits: "row_fits 53 4 parse_table_1233"
  unfolding parse_table_1233_def by simp

lemma parse_table_1234_fits: "row_fits 53 4 parse_table_1234"
  unfolding parse_table_1234_def by simp

lemma parse_table_1235_fits: "row_fits 53 4 parse_table_1235"
  unfolding parse_table_1235_def by simp

lemma parse_table_1236_fits: "row_fits 53 4 parse_table_1236"
  unfolding parse_table_1236_def by simp

lemma parse_table_1237_fits: "row_fits 53 4 parse_table_1237"
  unfolding parse_table_1237_def by simp

lemma parse_table_1238_fits: "row_fits 53 4 parse_table_1238"
  unfolding parse_table_1238_def by simp

lemma parse_table_1239_fits: "row_fits 53 4 parse_table_1239"
  unfolding parse_table_1239_def by simp

lemma parse_table_1240_fits: "row_fits 53 4 parse_table_1240"
  unfolding parse_table_1240_def by simp

lemma parse_table_1241_fits: "row_fits 53 4 parse_table_1241"
  unfolding parse_table_1241_def by simp

lemma parse_table_1242_fits: "row_fits 53 4 parse_table_1242"
  unfolding parse_table_1242_def by simp

lemma parse_table_1243_fits: "row_fits 53 4 parse_table_1243"
  unfolding parse_table_1243_def by simp

lemma parse_table_1244_fits: "row_fits 53 4 parse_table_1244"
  unfolding parse_table_1244_def by simp

lemma parse_table_1245_fits: "row_fits 53 4 parse_table_1245"
  unfolding parse_table_1245_def by simp

lemma parse_table_1246_fits: "row_fits 53 4 parse_table_1246"
  unfolding parse_table_1246_def by simp

lemma parse_table_1247_fits: "row_fits 53 4 parse_table_1247"
  unfolding parse_table_1247_def by simp

lemma parse_table_1248_fits: "row_fits 53 4 parse_table_1248"
  unfolding parse_table_1248_def by simp

lemma parse_table_1249_fits: "row_fits 53 4 parse_table_1249"
  unfolding parse_table_1249_def by simp

lemma parse_table_1250_fits: "row_fits 53 4 parse_table_1250"
  unfolding parse_table_1250_def by simp

lemma parse_table_1251_fits: "row_fits 53 4 parse_table_1251"
  unfolding parse_table_1251_def by simp

lemma parse_table_1252_fits: "row_fits 53 4 parse_table_1252"
  unfolding parse_table_1252_def by simp

lemma parse_table_1253_fits: "row_fits 53 4 parse_table_1253"
  unfolding parse_table_1253_def by simp

lemma parse_table_1254_fits: "row_fits 53 4 parse_table_1254"
  unfolding parse_table_1254_def by simp

lemma parse_table_1255_fits: "row_fits 53 4 parse_table_1255"
  unfolding parse_table_1255_def by simp

lemma parse_table_1256_fits: "row_fits 53 4 parse_table_1256"
  unfolding parse_table_1256_def by simp

lemma parse_table_1257_fits: "row_fits 53 4 parse_table_1257"
  unfolding parse_table_1257_def by simp

lemma parse_table_1258_fits: "row_fits 53 4 parse_table_1258"
  unfolding parse_table_1258_def by simp

lemma parse_table_1259_fits: "row_fits 53 4 parse_table_1259"
  unfolding parse_table_1259_def by simp

lemma parse_table_1260_fits: "row_fits 53 4 parse_table_1260"
  unfolding parse_table_1260_def by simp

lemma parse_table_1261_fits: "row_fits 53 4 parse_table_1261"
  unfolding parse_table_1261_def by simp

lemma parse_table_1262_fits: "row_fits 53 4 parse_table_1262"
  unfolding parse_table_1262_def by simp

lemma parse_table_1263_fits: "row_fits 53 4 parse_table_1263"
  unfolding parse_table_1263_def by simp

lemma parse_table_1264_fits: "row_fits 53 4 parse_table_1264"
  unfolding parse_table_1264_def by simp

lemma parse_table_1265_fits: "row_fits 53 4 parse_table_1265"
  unfolding parse_table_1265_def by simp

lemma parse_table_1266_fits: "row_fits 53 4 parse_table_1266"
  unfolding parse_table_1266_def by simp

lemma parse_table_1267_fits: "row_fits 53 4 parse_table_1267"
  unfolding parse_table_1267_def by simp

lemma parse_table_1268_fits: "row_fits 53 4 parse_table_1268"
  unfolding parse_table_1268_def by simp

lemma parse_table_1269_fits: "row_fits 53 4 parse_table_1269"
  unfolding parse_table_1269_def by simp

lemma parse_table_1270_fits: "row_fits 53 4 parse_table_1270"
  unfolding parse_table_1270_def by simp

lemma parse_table_1271_fits: "row_fits 53 4 parse_table_1271"
  unfolding parse_table_1271_def by simp

lemma parse_table_1272_fits: "row_fits 53 4 parse_table_1272"
  unfolding parse_table_1272_def by simp

lemma parse_table_1273_fits: "row_fits 53 4 parse_table_1273"
  unfolding parse_table_1273_def by simp

lemma parse_table_1274_fits: "row_fits 53 4 parse_table_1274"
  unfolding parse_table_1274_def by simp

lemma parse_table_1275_fits: "row_fits 53 4 parse_table_1275"
  unfolding parse_table_1275_def by simp

lemma parse_table_1276_fits: "row_fits 53 4 parse_table_1276"
  unfolding parse_table_1276_def by simp

lemma parse_table_1277_fits: "row_fits 53 4 parse_table_1277"
  unfolding parse_table_1277_def by simp

lemma parse_table_1278_fits: "row_fits 53 4 parse_table_1278"
  unfolding parse_table_1278_def by simp

declare table_row_check [simp del] One_nat_def [simp]

end
