(* ===== verification/Mojo_Parse_Table_Proofs.thy ===== *)
theory Mojo_Parse_Table_Proofs
  imports Mojo_Parse_Table Mojo_Lex_Mode_Proofs Mojo_Parse_Row_Proofs_0 Mojo_Parse_Row_Proofs_1 Mojo_Parse_Row_Proofs_2 Mojo_Parse_Row_Proofs_3 Mojo_Parse_Row_Proofs_4 Mojo_Parse_Row_Proofs_5 Mojo_Parse_Row_Proofs_6 Mojo_Parse_Row_Proofs_7 Mojo_Parse_Row_Proofs_8
begin

text \<open>
  The rows of the parse table fit the lexical states that \<open>ts_lex_modes\<close> gives for their parse states.
\<close>

section \<open>Blocks of rows\<close>

lemma parse_rows_0_fit:
  "list_all2 mode_fits ts_lex_modes_0 parse_rows_0"
  unfolding ts_lex_modes_0_def parse_rows_0_def
  by (simp del: One_nat_def add: fits_mode
    parse_table_0_fits parse_table_1_fits parse_table_2_fits parse_table_3_fits
    parse_table_4_fits parse_table_5_fits parse_table_6_fits parse_table_7_fits
    parse_table_8_fits parse_table_9_fits parse_table_10_fits parse_table_11_fits
    parse_table_12_fits parse_table_13_fits parse_table_14_fits parse_table_15_fits
    parse_table_16_fits parse_table_17_fits parse_table_18_fits parse_table_19_fits
    parse_table_20_fits parse_table_21_fits parse_table_22_fits parse_table_23_fits
    parse_table_24_fits parse_table_25_fits parse_table_26_fits parse_table_27_fits
    parse_table_28_fits parse_table_29_fits parse_table_30_fits parse_table_31_fits
    parse_table_32_fits parse_table_33_fits parse_table_34_fits parse_table_35_fits
    parse_table_36_fits parse_table_37_fits parse_table_38_fits parse_table_39_fits
    parse_table_40_fits parse_table_41_fits parse_table_42_fits parse_table_43_fits
    parse_table_44_fits parse_table_45_fits parse_table_46_fits parse_table_47_fits
    parse_table_48_fits parse_table_49_fits parse_table_50_fits parse_table_51_fits
    parse_table_52_fits parse_table_53_fits parse_table_54_fits parse_table_55_fits
    parse_table_56_fits parse_table_57_fits parse_table_58_fits parse_table_59_fits
    parse_table_60_fits parse_table_61_fits parse_table_62_fits parse_table_63_fits
    parse_table_64_fits parse_table_65_fits parse_table_66_fits parse_table_67_fits
    parse_table_68_fits parse_table_69_fits parse_table_70_fits parse_table_71_fits
    parse_table_72_fits parse_table_73_fits parse_table_74_fits parse_table_75_fits
    parse_table_76_fits parse_table_77_fits parse_table_78_fits parse_table_79_fits
    parse_table_80_fits parse_table_81_fits parse_table_82_fits parse_table_83_fits
    parse_table_84_fits parse_table_85_fits parse_table_86_fits parse_table_87_fits
    parse_table_88_fits parse_table_89_fits parse_table_90_fits parse_table_91_fits
    parse_table_92_fits parse_table_93_fits parse_table_94_fits parse_table_95_fits
    parse_table_96_fits parse_table_97_fits parse_table_98_fits parse_table_99_fits
    parse_table_100_fits parse_table_101_fits parse_table_102_fits parse_table_103_fits
    parse_table_104_fits parse_table_105_fits parse_table_106_fits parse_table_107_fits
    parse_table_108_fits parse_table_109_fits parse_table_110_fits parse_table_111_fits
    parse_table_112_fits parse_table_113_fits parse_table_114_fits parse_table_115_fits
    parse_table_116_fits parse_table_117_fits parse_table_118_fits parse_table_119_fits
    parse_table_120_fits parse_table_121_fits parse_table_122_fits parse_table_123_fits
    parse_table_124_fits parse_table_125_fits parse_table_126_fits parse_table_127_fits
    parse_table_128_fits parse_table_129_fits parse_table_130_fits parse_table_131_fits
    parse_table_132_fits parse_table_133_fits parse_table_134_fits parse_table_135_fits
    parse_table_136_fits parse_table_137_fits parse_table_138_fits parse_table_139_fits
    parse_table_140_fits parse_table_141_fits parse_table_142_fits parse_table_143_fits
    parse_table_144_fits parse_table_145_fits parse_table_146_fits parse_table_147_fits
    parse_table_148_fits parse_table_149_fits)

lemma parse_rows_1_fit:
  "list_all2 mode_fits ts_lex_modes_1 parse_rows_1"
  unfolding ts_lex_modes_1_def parse_rows_1_def
  by (simp del: One_nat_def add: fits_mode
    parse_table_150_fits parse_table_151_fits parse_table_152_fits parse_table_153_fits
    parse_table_154_fits parse_table_155_fits parse_table_156_fits parse_table_157_fits
    parse_table_158_fits parse_table_159_fits parse_table_160_fits parse_table_161_fits
    parse_table_162_fits parse_table_163_fits parse_table_164_fits parse_table_165_fits
    parse_table_166_fits parse_table_167_fits parse_table_168_fits parse_table_169_fits
    parse_table_170_fits parse_table_171_fits parse_table_172_fits parse_table_173_fits
    parse_table_174_fits parse_table_175_fits parse_table_176_fits parse_table_177_fits
    parse_table_178_fits parse_table_179_fits parse_table_180_fits parse_table_181_fits
    parse_table_182_fits parse_table_183_fits parse_table_184_fits parse_table_185_fits
    parse_table_186_fits parse_table_187_fits parse_table_188_fits parse_table_189_fits
    parse_table_190_fits parse_table_191_fits parse_table_192_fits parse_table_193_fits
    parse_table_194_fits parse_table_195_fits parse_table_196_fits parse_table_197_fits
    parse_table_198_fits parse_table_199_fits parse_table_200_fits parse_table_201_fits
    parse_table_202_fits parse_table_203_fits parse_table_204_fits parse_table_205_fits
    parse_table_206_fits parse_table_207_fits parse_table_208_fits parse_table_209_fits
    parse_table_210_fits parse_table_211_fits parse_table_212_fits parse_table_213_fits
    parse_table_214_fits parse_table_215_fits parse_table_216_fits parse_table_217_fits
    parse_table_218_fits parse_table_219_fits parse_table_220_fits parse_table_221_fits
    parse_table_222_fits parse_table_223_fits parse_table_224_fits parse_table_225_fits
    parse_table_226_fits parse_table_227_fits parse_table_228_fits parse_table_229_fits
    parse_table_230_fits parse_table_231_fits parse_table_232_fits parse_table_233_fits
    parse_table_234_fits parse_table_235_fits parse_table_236_fits parse_table_237_fits
    parse_table_238_fits parse_table_239_fits parse_table_240_fits parse_table_241_fits
    parse_table_242_fits parse_table_243_fits parse_table_244_fits parse_table_245_fits
    parse_table_246_fits parse_table_247_fits parse_table_248_fits parse_table_249_fits
    parse_table_250_fits parse_table_251_fits parse_table_252_fits parse_table_253_fits
    parse_table_254_fits parse_table_255_fits parse_table_256_fits parse_table_257_fits
    parse_table_258_fits parse_table_259_fits parse_table_260_fits parse_table_261_fits
    parse_table_262_fits parse_table_263_fits parse_table_264_fits parse_table_265_fits
    parse_table_266_fits parse_table_267_fits parse_table_268_fits parse_table_269_fits
    parse_table_270_fits parse_table_271_fits parse_table_272_fits parse_table_273_fits
    parse_table_274_fits parse_table_275_fits parse_table_276_fits parse_table_277_fits
    parse_table_278_fits parse_table_279_fits parse_table_280_fits parse_table_281_fits
    parse_table_282_fits parse_table_283_fits parse_table_284_fits parse_table_285_fits
    parse_table_286_fits parse_table_287_fits parse_table_288_fits parse_table_289_fits
    parse_table_290_fits parse_table_291_fits parse_table_292_fits parse_table_293_fits
    parse_table_294_fits parse_table_295_fits parse_table_296_fits parse_table_297_fits
    parse_table_298_fits parse_table_299_fits)

lemma parse_rows_2_fit:
  "list_all2 mode_fits ts_lex_modes_2 parse_rows_2"
  unfolding ts_lex_modes_2_def parse_rows_2_def
  by (simp del: One_nat_def add: fits_mode
    parse_table_300_fits parse_table_301_fits parse_table_302_fits parse_table_303_fits
    parse_table_304_fits parse_table_305_fits parse_table_306_fits parse_table_307_fits
    parse_table_308_fits parse_table_309_fits parse_table_310_fits parse_table_311_fits
    parse_table_312_fits parse_table_313_fits parse_table_314_fits parse_table_315_fits
    parse_table_316_fits parse_table_317_fits parse_table_318_fits parse_table_319_fits
    parse_table_320_fits parse_table_321_fits parse_table_322_fits parse_table_323_fits
    parse_table_324_fits parse_table_325_fits parse_table_326_fits parse_table_327_fits
    parse_table_328_fits parse_table_329_fits parse_table_330_fits parse_table_331_fits
    parse_table_332_fits parse_table_333_fits parse_table_334_fits parse_table_335_fits
    parse_table_336_fits parse_table_337_fits parse_table_338_fits parse_table_339_fits
    parse_table_340_fits parse_table_341_fits parse_table_342_fits parse_table_343_fits
    parse_table_344_fits parse_table_345_fits parse_table_346_fits parse_table_347_fits
    parse_table_348_fits parse_table_349_fits parse_table_350_fits parse_table_351_fits
    parse_table_352_fits parse_table_353_fits parse_table_354_fits parse_table_355_fits
    parse_table_356_fits parse_table_357_fits parse_table_358_fits parse_table_359_fits
    parse_table_360_fits parse_table_361_fits parse_table_362_fits parse_table_363_fits
    parse_table_364_fits parse_table_365_fits parse_table_366_fits parse_table_367_fits
    parse_table_368_fits parse_table_369_fits parse_table_370_fits parse_table_371_fits
    parse_table_372_fits parse_table_373_fits parse_table_374_fits parse_table_375_fits
    parse_table_376_fits parse_table_377_fits parse_table_378_fits parse_table_379_fits
    parse_table_380_fits parse_table_381_fits parse_table_382_fits parse_table_383_fits
    parse_table_384_fits parse_table_385_fits parse_table_386_fits parse_table_387_fits
    parse_table_388_fits parse_table_389_fits parse_table_390_fits parse_table_391_fits
    parse_table_392_fits parse_table_393_fits parse_table_394_fits parse_table_395_fits
    parse_table_396_fits parse_table_397_fits parse_table_398_fits parse_table_399_fits
    parse_table_400_fits parse_table_401_fits parse_table_402_fits parse_table_403_fits
    parse_table_404_fits parse_table_405_fits parse_table_406_fits parse_table_407_fits
    parse_table_408_fits parse_table_409_fits parse_table_410_fits parse_table_411_fits
    parse_table_412_fits parse_table_413_fits parse_table_414_fits parse_table_415_fits
    parse_table_416_fits parse_table_417_fits parse_table_418_fits parse_table_419_fits
    parse_table_420_fits parse_table_421_fits parse_table_422_fits parse_table_423_fits
    parse_table_424_fits parse_table_425_fits parse_table_426_fits parse_table_427_fits
    parse_table_428_fits parse_table_429_fits parse_table_430_fits parse_table_431_fits
    parse_table_432_fits parse_table_433_fits parse_table_434_fits parse_table_435_fits
    parse_table_436_fits parse_table_437_fits parse_table_438_fits parse_table_439_fits
    parse_table_440_fits parse_table_441_fits parse_table_442_fits parse_table_443_fits
    parse_table_444_fits parse_table_445_fits parse_table_446_fits parse_table_447_fits
    parse_table_448_fits parse_table_449_fits)

lemma parse_rows_3_fit:
  "list_all2 mode_fits ts_lex_modes_3 parse_rows_3"
  unfolding ts_lex_modes_3_def parse_rows_3_def
  by (simp del: One_nat_def add: fits_mode
    parse_table_450_fits parse_table_451_fits parse_table_452_fits parse_table_453_fits
    parse_table_454_fits parse_table_455_fits parse_table_456_fits parse_table_457_fits
    parse_table_458_fits parse_table_459_fits parse_table_460_fits parse_table_461_fits
    parse_table_462_fits parse_table_463_fits parse_table_464_fits parse_table_465_fits
    parse_table_466_fits parse_table_467_fits parse_table_468_fits parse_table_469_fits
    parse_table_470_fits parse_table_471_fits parse_table_472_fits parse_table_473_fits
    parse_table_474_fits parse_table_475_fits parse_table_476_fits parse_table_477_fits
    parse_table_478_fits parse_table_479_fits parse_table_480_fits parse_table_481_fits
    parse_table_482_fits parse_table_483_fits parse_table_484_fits parse_table_485_fits
    parse_table_486_fits parse_table_487_fits parse_table_488_fits parse_table_489_fits
    parse_table_490_fits parse_table_491_fits parse_table_492_fits parse_table_493_fits
    parse_table_494_fits parse_table_495_fits parse_table_496_fits parse_table_497_fits
    parse_table_498_fits parse_table_499_fits parse_table_500_fits parse_table_501_fits
    parse_table_502_fits parse_table_503_fits parse_table_504_fits parse_table_505_fits
    parse_table_506_fits parse_table_507_fits parse_table_508_fits parse_table_509_fits
    parse_table_510_fits parse_table_511_fits parse_table_512_fits parse_table_513_fits
    parse_table_514_fits parse_table_515_fits parse_table_516_fits parse_table_517_fits
    parse_table_518_fits parse_table_519_fits parse_table_520_fits parse_table_521_fits
    parse_table_522_fits parse_table_523_fits parse_table_524_fits parse_table_525_fits
    parse_table_526_fits parse_table_527_fits parse_table_528_fits parse_table_529_fits
    parse_table_530_fits parse_table_531_fits parse_table_532_fits parse_table_533_fits
    parse_table_534_fits parse_table_535_fits parse_table_536_fits parse_table_537_fits
    parse_table_538_fits parse_table_539_fits parse_table_540_fits parse_table_541_fits
    parse_table_542_fits parse_table_543_fits parse_table_544_fits parse_table_545_fits
    parse_table_546_fits parse_table_547_fits parse_table_548_fits parse_table_549_fits
    parse_table_550_fits parse_table_551_fits parse_table_552_fits parse_table_553_fits
    parse_table_554_fits parse_table_555_fits parse_table_556_fits parse_table_557_fits
    parse_table_558_fits parse_table_559_fits parse_table_560_fits parse_table_561_fits
    parse_table_562_fits parse_table_563_fits parse_table_564_fits parse_table_565_fits
    parse_table_566_fits parse_table_567_fits parse_table_568_fits parse_table_569_fits
    parse_table_570_fits parse_table_571_fits parse_table_572_fits parse_table_573_fits
    parse_table_574_fits parse_table_575_fits parse_table_576_fits parse_table_577_fits
    parse_table_578_fits parse_table_579_fits parse_table_580_fits parse_table_581_fits
    parse_table_582_fits parse_table_583_fits parse_table_584_fits parse_table_585_fits
    parse_table_586_fits parse_table_587_fits parse_table_588_fits parse_table_589_fits
    parse_table_590_fits parse_table_591_fits parse_table_592_fits parse_table_593_fits
    parse_table_594_fits parse_table_595_fits parse_table_596_fits parse_table_597_fits
    parse_table_598_fits parse_table_599_fits)

lemma parse_rows_4_fit:
  "list_all2 mode_fits ts_lex_modes_4 parse_rows_4"
  unfolding ts_lex_modes_4_def parse_rows_4_def
  by (simp del: One_nat_def add: fits_mode
    parse_table_600_fits parse_table_601_fits parse_table_602_fits parse_table_603_fits
    parse_table_604_fits parse_table_605_fits parse_table_606_fits parse_table_607_fits
    parse_table_608_fits parse_table_609_fits parse_table_610_fits parse_table_611_fits
    parse_table_612_fits parse_table_613_fits parse_table_614_fits parse_table_615_fits
    parse_table_616_fits parse_table_617_fits parse_table_618_fits parse_table_619_fits
    parse_table_620_fits parse_table_621_fits parse_table_622_fits parse_table_623_fits
    parse_table_624_fits parse_table_625_fits parse_table_626_fits parse_table_627_fits
    parse_table_628_fits parse_table_629_fits parse_table_630_fits parse_table_631_fits
    parse_table_632_fits parse_table_633_fits parse_table_634_fits parse_table_635_fits
    parse_table_636_fits parse_table_637_fits parse_table_638_fits parse_table_639_fits
    parse_table_640_fits parse_table_641_fits parse_table_642_fits parse_table_643_fits
    parse_table_644_fits parse_table_645_fits parse_table_646_fits parse_table_647_fits
    parse_table_648_fits parse_table_649_fits parse_table_650_fits parse_table_651_fits
    parse_table_652_fits parse_table_653_fits parse_table_654_fits parse_table_655_fits
    parse_table_656_fits parse_table_657_fits parse_table_658_fits parse_table_659_fits
    parse_table_660_fits parse_table_661_fits parse_table_662_fits parse_table_663_fits
    parse_table_664_fits parse_table_665_fits parse_table_666_fits parse_table_667_fits
    parse_table_668_fits parse_table_669_fits parse_table_670_fits parse_table_671_fits
    parse_table_672_fits parse_table_673_fits parse_table_674_fits parse_table_675_fits
    parse_table_676_fits parse_table_677_fits parse_table_678_fits parse_table_679_fits
    parse_table_680_fits parse_table_681_fits parse_table_682_fits parse_table_683_fits
    parse_table_684_fits parse_table_685_fits parse_table_686_fits parse_table_687_fits
    parse_table_688_fits parse_table_689_fits parse_table_690_fits parse_table_691_fits
    parse_table_692_fits parse_table_693_fits parse_table_694_fits parse_table_695_fits
    parse_table_696_fits parse_table_697_fits parse_table_698_fits parse_table_699_fits
    parse_table_700_fits parse_table_701_fits parse_table_702_fits parse_table_703_fits
    parse_table_704_fits parse_table_705_fits parse_table_706_fits parse_table_707_fits
    parse_table_708_fits parse_table_709_fits parse_table_710_fits parse_table_711_fits
    parse_table_712_fits parse_table_713_fits parse_table_714_fits parse_table_715_fits
    parse_table_716_fits parse_table_717_fits parse_table_718_fits parse_table_719_fits
    parse_table_720_fits parse_table_721_fits parse_table_722_fits parse_table_723_fits
    parse_table_724_fits parse_table_725_fits parse_table_726_fits parse_table_727_fits
    parse_table_728_fits parse_table_729_fits parse_table_730_fits parse_table_731_fits
    parse_table_732_fits parse_table_733_fits parse_table_734_fits parse_table_735_fits
    parse_table_736_fits parse_table_737_fits parse_table_738_fits parse_table_739_fits
    parse_table_740_fits parse_table_741_fits parse_table_742_fits parse_table_743_fits
    parse_table_744_fits parse_table_745_fits parse_table_746_fits parse_table_747_fits
    parse_table_748_fits parse_table_749_fits)

lemma parse_rows_5_fit:
  "list_all2 mode_fits ts_lex_modes_5 parse_rows_5"
  unfolding ts_lex_modes_5_def parse_rows_5_def
  by (simp del: One_nat_def add: fits_mode
    parse_table_750_fits parse_table_751_fits parse_table_752_fits parse_table_753_fits
    parse_table_754_fits parse_table_755_fits parse_table_756_fits parse_table_757_fits
    parse_table_758_fits parse_table_759_fits parse_table_760_fits parse_table_761_fits
    parse_table_762_fits parse_table_763_fits parse_table_764_fits parse_table_765_fits
    parse_table_766_fits parse_table_767_fits parse_table_768_fits parse_table_769_fits
    parse_table_770_fits parse_table_771_fits parse_table_772_fits parse_table_773_fits
    parse_table_774_fits parse_table_775_fits parse_table_776_fits parse_table_777_fits
    parse_table_778_fits parse_table_779_fits parse_table_780_fits parse_table_781_fits
    parse_table_782_fits parse_table_783_fits parse_table_784_fits parse_table_785_fits
    parse_table_786_fits parse_table_787_fits parse_table_788_fits parse_table_789_fits
    parse_table_790_fits parse_table_791_fits parse_table_792_fits parse_table_793_fits
    parse_table_794_fits parse_table_795_fits parse_table_796_fits parse_table_797_fits
    parse_table_798_fits parse_table_799_fits parse_table_800_fits parse_table_801_fits
    parse_table_802_fits parse_table_803_fits parse_table_804_fits parse_table_805_fits
    parse_table_806_fits parse_table_807_fits parse_table_808_fits parse_table_809_fits
    parse_table_810_fits parse_table_811_fits parse_table_812_fits parse_table_813_fits
    parse_table_814_fits parse_table_815_fits parse_table_816_fits parse_table_817_fits
    parse_table_818_fits parse_table_819_fits parse_table_820_fits parse_table_821_fits
    parse_table_822_fits parse_table_823_fits parse_table_824_fits parse_table_825_fits
    parse_table_826_fits parse_table_827_fits parse_table_828_fits parse_table_829_fits
    parse_table_830_fits parse_table_831_fits parse_table_832_fits parse_table_833_fits
    parse_table_834_fits parse_table_835_fits parse_table_836_fits parse_table_837_fits
    parse_table_838_fits parse_table_839_fits parse_table_840_fits parse_table_841_fits
    parse_table_842_fits parse_table_843_fits parse_table_844_fits parse_table_845_fits
    parse_table_846_fits parse_table_847_fits parse_table_848_fits parse_table_849_fits
    parse_table_850_fits parse_table_851_fits parse_table_852_fits parse_table_853_fits
    parse_table_854_fits parse_table_855_fits parse_table_856_fits parse_table_857_fits
    parse_table_858_fits parse_table_859_fits parse_table_860_fits parse_table_861_fits
    parse_table_862_fits parse_table_863_fits parse_table_864_fits parse_table_865_fits
    parse_table_866_fits parse_table_867_fits parse_table_868_fits parse_table_869_fits
    parse_table_870_fits parse_table_871_fits parse_table_872_fits parse_table_873_fits
    parse_table_874_fits parse_table_875_fits parse_table_876_fits parse_table_877_fits
    parse_table_878_fits parse_table_879_fits parse_table_880_fits parse_table_881_fits
    parse_table_882_fits parse_table_883_fits parse_table_884_fits parse_table_885_fits
    parse_table_886_fits parse_table_887_fits parse_table_888_fits parse_table_889_fits
    parse_table_890_fits parse_table_891_fits parse_table_892_fits parse_table_893_fits
    parse_table_894_fits parse_table_895_fits parse_table_896_fits parse_table_897_fits
    parse_table_898_fits parse_table_899_fits)

lemma parse_rows_6_fit:
  "list_all2 mode_fits ts_lex_modes_6 parse_rows_6"
  unfolding ts_lex_modes_6_def parse_rows_6_def
  by (simp del: One_nat_def add: fits_mode
    parse_table_900_fits parse_table_901_fits parse_table_902_fits parse_table_903_fits
    parse_table_904_fits parse_table_905_fits parse_table_906_fits parse_table_907_fits
    parse_table_908_fits parse_table_909_fits parse_table_910_fits parse_table_911_fits
    parse_table_912_fits parse_table_913_fits parse_table_914_fits parse_table_915_fits
    parse_table_916_fits parse_table_917_fits parse_table_918_fits parse_table_919_fits
    parse_table_920_fits parse_table_921_fits parse_table_922_fits parse_table_923_fits
    parse_table_924_fits parse_table_925_fits parse_table_926_fits parse_table_927_fits
    parse_table_928_fits parse_table_929_fits parse_table_930_fits parse_table_931_fits
    parse_table_932_fits parse_table_933_fits parse_table_934_fits parse_table_935_fits
    parse_table_936_fits parse_table_937_fits parse_table_938_fits parse_table_939_fits
    parse_table_940_fits parse_table_941_fits parse_table_942_fits parse_table_943_fits
    parse_table_944_fits parse_table_945_fits parse_table_946_fits parse_table_947_fits
    parse_table_948_fits parse_table_949_fits parse_table_950_fits parse_table_951_fits
    parse_table_952_fits parse_table_953_fits parse_table_954_fits parse_table_955_fits
    parse_table_956_fits parse_table_957_fits parse_table_958_fits parse_table_959_fits
    parse_table_960_fits parse_table_961_fits parse_table_962_fits parse_table_963_fits
    parse_table_964_fits parse_table_965_fits parse_table_966_fits parse_table_967_fits
    parse_table_968_fits parse_table_969_fits parse_table_970_fits parse_table_971_fits
    parse_table_972_fits parse_table_973_fits parse_table_974_fits parse_table_975_fits
    parse_table_976_fits parse_table_977_fits parse_table_978_fits parse_table_979_fits
    parse_table_980_fits parse_table_981_fits parse_table_982_fits parse_table_983_fits
    parse_table_984_fits parse_table_985_fits parse_table_986_fits parse_table_987_fits
    parse_table_988_fits parse_table_989_fits parse_table_990_fits parse_table_991_fits
    parse_table_992_fits parse_table_993_fits parse_table_994_fits parse_table_995_fits
    parse_table_996_fits parse_table_997_fits parse_table_998_fits parse_table_999_fits
    parse_table_1000_fits parse_table_1001_fits parse_table_1002_fits parse_table_1003_fits
    parse_table_1004_fits parse_table_1005_fits parse_table_1006_fits parse_table_1007_fits
    parse_table_1008_fits parse_table_1009_fits parse_table_1010_fits parse_table_1011_fits
    parse_table_1012_fits parse_table_1013_fits parse_table_1014_fits parse_table_1015_fits
    parse_table_1016_fits parse_table_1017_fits parse_table_1018_fits parse_table_1019_fits
    parse_table_1020_fits parse_table_1021_fits parse_table_1022_fits parse_table_1023_fits
    parse_table_1024_fits parse_table_1025_fits parse_table_1026_fits parse_table_1027_fits
    parse_table_1028_fits parse_table_1029_fits parse_table_1030_fits parse_table_1031_fits
    parse_table_1032_fits parse_table_1033_fits parse_table_1034_fits parse_table_1035_fits
    parse_table_1036_fits parse_table_1037_fits parse_table_1038_fits parse_table_1039_fits
    parse_table_1040_fits parse_table_1041_fits parse_table_1042_fits parse_table_1043_fits
    parse_table_1044_fits parse_table_1045_fits parse_table_1046_fits parse_table_1047_fits
    parse_table_1048_fits parse_table_1049_fits)

lemma parse_rows_7_fit:
  "list_all2 mode_fits ts_lex_modes_7 parse_rows_7"
  unfolding ts_lex_modes_7_def parse_rows_7_def
  by (simp del: One_nat_def add: fits_mode
    parse_table_1050_fits parse_table_1051_fits parse_table_1052_fits parse_table_1053_fits
    parse_table_1054_fits parse_table_1055_fits parse_table_1056_fits parse_table_1057_fits
    parse_table_1058_fits parse_table_1059_fits parse_table_1060_fits parse_table_1061_fits
    parse_table_1062_fits parse_table_1063_fits parse_table_1064_fits parse_table_1065_fits
    parse_table_1066_fits parse_table_1067_fits parse_table_1068_fits parse_table_1069_fits
    parse_table_1070_fits parse_table_1071_fits parse_table_1072_fits parse_table_1073_fits
    parse_table_1074_fits parse_table_1075_fits parse_table_1076_fits parse_table_1077_fits
    parse_table_1078_fits parse_table_1079_fits parse_table_1080_fits parse_table_1081_fits
    parse_table_1082_fits parse_table_1083_fits parse_table_1084_fits parse_table_1085_fits
    parse_table_1086_fits parse_table_1087_fits parse_table_1088_fits parse_table_1089_fits
    parse_table_1090_fits parse_table_1091_fits parse_table_1092_fits parse_table_1093_fits
    parse_table_1094_fits parse_table_1095_fits parse_table_1096_fits parse_table_1097_fits
    parse_table_1098_fits parse_table_1099_fits parse_table_1100_fits parse_table_1101_fits
    parse_table_1102_fits parse_table_1103_fits parse_table_1104_fits parse_table_1105_fits
    parse_table_1106_fits parse_table_1107_fits parse_table_1108_fits parse_table_1109_fits
    parse_table_1110_fits parse_table_1111_fits parse_table_1112_fits parse_table_1113_fits
    parse_table_1114_fits parse_table_1115_fits parse_table_1116_fits parse_table_1117_fits
    parse_table_1118_fits parse_table_1119_fits parse_table_1120_fits parse_table_1121_fits
    parse_table_1122_fits parse_table_1123_fits parse_table_1124_fits parse_table_1125_fits
    parse_table_1126_fits parse_table_1127_fits parse_table_1128_fits parse_table_1129_fits
    parse_table_1130_fits parse_table_1131_fits parse_table_1132_fits parse_table_1133_fits
    parse_table_1134_fits parse_table_1135_fits parse_table_1136_fits parse_table_1137_fits
    parse_table_1138_fits parse_table_1139_fits parse_table_1140_fits parse_table_1141_fits
    parse_table_1142_fits parse_table_1143_fits parse_table_1144_fits parse_table_1145_fits
    parse_table_1146_fits parse_table_1147_fits parse_table_1148_fits parse_table_1149_fits
    parse_table_1150_fits parse_table_1151_fits parse_table_1152_fits parse_table_1153_fits
    parse_table_1154_fits parse_table_1155_fits parse_table_1156_fits parse_table_1157_fits
    parse_table_1158_fits parse_table_1159_fits parse_table_1160_fits parse_table_1161_fits
    parse_table_1162_fits parse_table_1163_fits parse_table_1164_fits parse_table_1165_fits
    parse_table_1166_fits parse_table_1167_fits parse_table_1168_fits parse_table_1169_fits
    parse_table_1170_fits parse_table_1171_fits parse_table_1172_fits parse_table_1173_fits
    parse_table_1174_fits parse_table_1175_fits parse_table_1176_fits parse_table_1177_fits
    parse_table_1178_fits parse_table_1179_fits parse_table_1180_fits parse_table_1181_fits
    parse_table_1182_fits parse_table_1183_fits parse_table_1184_fits parse_table_1185_fits
    parse_table_1186_fits parse_table_1187_fits parse_table_1188_fits parse_table_1189_fits
    parse_table_1190_fits parse_table_1191_fits parse_table_1192_fits parse_table_1193_fits
    parse_table_1194_fits parse_table_1195_fits parse_table_1196_fits parse_table_1197_fits
    parse_table_1198_fits parse_table_1199_fits)

lemma parse_rows_8_fit:
  "list_all2 mode_fits (take 79 ts_lex_modes_8) parse_rows_8"
  unfolding ts_lex_modes_8_def parse_rows_8_def
  by (simp del: One_nat_def add: fits_mode
    parse_table_1200_fits parse_table_1201_fits parse_table_1202_fits parse_table_1203_fits
    parse_table_1204_fits parse_table_1205_fits parse_table_1206_fits parse_table_1207_fits
    parse_table_1208_fits parse_table_1209_fits parse_table_1210_fits parse_table_1211_fits
    parse_table_1212_fits parse_table_1213_fits parse_table_1214_fits parse_table_1215_fits
    parse_table_1216_fits parse_table_1217_fits parse_table_1218_fits parse_table_1219_fits
    parse_table_1220_fits parse_table_1221_fits parse_table_1222_fits parse_table_1223_fits
    parse_table_1224_fits parse_table_1225_fits parse_table_1226_fits parse_table_1227_fits
    parse_table_1228_fits parse_table_1229_fits parse_table_1230_fits parse_table_1231_fits
    parse_table_1232_fits parse_table_1233_fits parse_table_1234_fits parse_table_1235_fits
    parse_table_1236_fits parse_table_1237_fits parse_table_1238_fits parse_table_1239_fits
    parse_table_1240_fits parse_table_1241_fits parse_table_1242_fits parse_table_1243_fits
    parse_table_1244_fits parse_table_1245_fits parse_table_1246_fits parse_table_1247_fits
    parse_table_1248_fits parse_table_1249_fits parse_table_1250_fits parse_table_1251_fits
    parse_table_1252_fits parse_table_1253_fits parse_table_1254_fits parse_table_1255_fits
    parse_table_1256_fits parse_table_1257_fits parse_table_1258_fits parse_table_1259_fits
    parse_table_1260_fits parse_table_1261_fits parse_table_1262_fits parse_table_1263_fits
    parse_table_1264_fits parse_table_1265_fits parse_table_1266_fits parse_table_1267_fits
    parse_table_1268_fits parse_table_1269_fits parse_table_1270_fits parse_table_1271_fits
    parse_table_1272_fits parse_table_1273_fits parse_table_1274_fits parse_table_1275_fits
    parse_table_1276_fits parse_table_1277_fits parse_table_1278_fits)

end
