(* ===== verification/Mojo_Parse_Table_Properties.thy ===== *)
theory Mojo_Parse_Table_Properties
  imports Mojo_Parse_Properties Mojo_Table_Properties Mojo_Parse_Table_Proofs
begin

text \<open>
  The parse table with the tables it refers to: its entries select groups of parse actions and parse
  states, the external scanner is told that a token is valid exactly where the table has an action for
  it, and a token that the scanner reports has an action.
\<close>

section \<open>Rows of the table\<close>

lemma length_parse_table_rows: "length parse_table_rows = 1279"
  unfolding parse_table_rows_def length_append parse_rows_0_def parse_rows_1_def parse_rows_2_def
    parse_rows_3_def parse_rows_4_def parse_rows_5_def parse_rows_6_def parse_rows_7_def parse_rows_8_def
  by simp

text \<open>The modes of these states, a prefix of \<open>ts_lex_modes\<close>.\<close>

definition table_modes :: "TSLexerMode list" where
  "table_modes = ts_lex_modes_0 @ ts_lex_modes_1 @ ts_lex_modes_2 @ ts_lex_modes_3 @ ts_lex_modes_4 @
     ts_lex_modes_5 @ ts_lex_modes_6 @ ts_lex_modes_7 @ take 79 ts_lex_modes_8"

lemma length_table_modes: "length table_modes = 1279"
  using ts_lex_modes_0_ok ts_lex_modes_1_ok ts_lex_modes_2_ok ts_lex_modes_3_ok ts_lex_modes_4_ok
    ts_lex_modes_5_ok ts_lex_modes_6_ok ts_lex_modes_7_ok ts_lex_modes_8_ok
  by (simp only: table_modes_def length_append length_take)

lemma ts_lex_modes_prefix:
  assumes "s < 1279"
  shows "ts_lex_modes ! s = table_modes ! s"
proof -
  have "\<exists>rest. ts_lex_modes = (ts_lex_modes_0 @ ts_lex_modes_1 @ ts_lex_modes_2 @ ts_lex_modes_3 @
      ts_lex_modes_4 @ ts_lex_modes_5 @ ts_lex_modes_6 @ ts_lex_modes_7) @ ts_lex_modes_8 @ rest"
    unfolding ts_lex_modes_def concat.simps append_assoc by (rule exI) (rule refl)
  then have "\<exists>rest. ts_lex_modes = table_modes @ rest"
    unfolding table_modes_def by (metis append_assoc append_take_drop_id)
  then show ?thesis using assms length_table_modes by (metis nth_append)
qed

lemma parse_table_rows_fit:
  assumes "s < length parse_table_rows"
  shows "mode_fits (ts_lex_modes ! s) (parse_table_rows ! s)"
proof -
  have "list_all2 mode_fits table_modes parse_table_rows"
    unfolding parse_table_rows_def table_modes_def
    by (intro list_all2_appendI parse_rows_0_fit parse_rows_1_fit parse_rows_2_fit parse_rows_3_fit
        parse_rows_4_fit parse_rows_5_fit parse_rows_6_fit parse_rows_7_fit parse_rows_8_fit)
  then have "mode_fits (table_modes ! s) (parse_table_rows ! s)"
    using assms by (simp only: list_all2_conv_all_nth)
  with ts_lex_modes_prefix [of s] assms show ?thesis unfolding length_parse_table_rows by simp
qed

section \<open>Entries of the table\<close>

lemma entry_fits_nonzero: "entry_fits q symbol v \<Longrightarrow> v \<noteq> 0"
  by (auto simp: entry_fits_def action_group_def split: if_splits)

lemma parse_table_entry_fits:
  assumes "s < length parse_table_rows" and "symbol < SYMBOL_COUNT"
  shows "parse_table_entry s symbol \<noteq> 0 \<longleftrightarrow> symbol \<in> fst ` set (parse_table_rows ! s)"
    and "parse_table_entry s symbol \<noteq> 0 \<Longrightarrow>
      entry_fits (lex_state (ts_lex_modes ! s)) symbol (parse_table_entry s symbol)"
proof -
  let ?q = "lex_state (ts_lex_modes ! s)"
  have fits: "entry_fits ?q i v" if "(i, v) \<in> set (parse_table_rows ! s)" for i v
    using parse_table_rows_fit [OF assms(1)] that
    by (auto simp: mode_fits_def row_fits_def list_all_iff)
  have "parse_table_entry s symbol = 0 \<and> symbol \<notin> fst ` set (parse_table_rows ! s) \<or>
      entry_fits ?q symbol (parse_table_entry s symbol) \<and> symbol \<in> fst ` set (parse_table_rows ! s)"
    using assms(2)
  proof (cases rule: designated_cases [where z = 0 and ds = "parse_table_rows ! s"])
    case 1
    then show ?thesis by (simp add: parse_table_entry_def)
  next
    case 2
    then show ?thesis using fits by (force simp: parse_table_entry_def)
  qed
  then show "parse_table_entry s symbol \<noteq> 0 \<longleftrightarrow> symbol \<in> fst ` set (parse_table_rows ! s)"
    and "parse_table_entry s symbol \<noteq> 0 \<Longrightarrow>
      entry_fits (lex_state (ts_lex_modes ! s)) symbol (parse_table_entry s symbol)"
    by (auto dest: entry_fits_nonzero)
qed

lemma no_actions_at_0: "actions_at 0 = Some []"
proof -
  have "(0, [ENTRY 0 False]) \<in> set parse_action_rows"
    by (auto simp: parse_action_rows_def parse_actions_0_def)
  from row_actions [OF this] show ?thesis by (auto simp: ENTRY_def)
qed

lemma action_group_actions:
  assumes "action_group v"
  shows "\<exists>acts. actions_at v = Some acts \<and> acts \<noteq> [] \<and> list_all action_ok acts \<and> v < length ts_parse_actions"
proof -
  from assms obtain es where "(v, es) \<in> set parse_action_rows" "1 < length es"
    by (auto simp: action_group_def)
  from row_actions [OF this(1)] this(2) show ?thesis by (metis One_nat_def add_lessD1
      length_Cons length_map less_add_same_cancel1 less_le_trans list.size(3) not_less_iff_gr_or_eq zero_less_Suc)
qed

lemma terminal_actions:
  assumes "s < length parse_table_rows" and "symbol < TOKEN_COUNT"
  shows "\<exists>acts. parse_table_entry s symbol < length ts_parse_actions \<and>
    actions_at (parse_table_entry s symbol) = Some acts \<and> list_all action_ok acts \<and>
    (acts = [] \<longleftrightarrow> parse_table_entry s symbol = 0)"
proof (cases "parse_table_entry s symbol = 0")
  case True
  then show ?thesis using no_actions_at_0 length_ts_parse_actions by simp
next
  case False
  have "symbol < SYMBOL_COUNT" using assms(2) by (simp add: TOKEN_COUNT_def SYMBOL_COUNT_def)
  from parse_table_entry_fits(2) [OF assms(1) this False] assms(2)
  have "action_group (parse_table_entry s symbol)" by (simp add: entry_fits_def)
  from action_group_actions [OF this] False show ?thesis by auto
qed

section \<open>External tokens\<close>

lemma symbol_map_distinct:
  "distinct ts_external_scanner_symbol_map" "length ts_external_scanner_symbol_map = EXTERNAL_TOKEN_COUNT"
  by code_simp+

lemma external_entry:
  assumes "s < length parse_table_rows" and "k < EXTERNAL_TOKEN_COUNT"
  shows "parse_table_entry s (ts_external_scanner_symbol_map ! k) \<noteq> 0 \<longleftrightarrow>
    ts_external_scanner_states ! external_lex_state (ts_lex_modes ! s) ! k"
proof -
  let ?sm = ts_external_scanner_symbol_map and ?e = "external_lex_state (ts_lex_modes ! s)"
  have s: "s < STATE_COUNT" using assms(1) length_parse_table_rows by (simp add: STATE_COUNT_def)
  have k: "?sm ! k \<in> set ?sm" "?sm ! k < TOKEN_COUNT"
    using symbol_map_tokens assms(2) symbol_map_distinct(2) by auto
  have len: "length (ts_external_scanner_states ! ?e) = EXTERNAL_TOKEN_COUNT"
    using external_row_lengths external_lex_state_bounds [OF s] length_external_states
    by (simp add: list_all_length)
  have "parse_table_entry s (?sm ! k) \<noteq> 0 \<longleftrightarrow> ?sm ! k \<in> fst ` set (parse_table_rows ! s)"
    using parse_table_entry_fits(1) [OF assms(1)] k(2) by (simp add: TOKEN_COUNT_def SYMBOL_COUNT_def)
  also have "\<dots> \<longleftrightarrow> ?sm ! k \<in> set (filter external_terminal (map fst (parse_table_rows ! s)))"
    using k(1) by (simp add: external_terminal_def)
  also have "\<dots> \<longleftrightarrow> ?sm ! k \<in> set (valid_terminals ?e)"
    using parse_table_rows_fit [OF assms(1)] by (simp only: mode_fits_def row_fits_def)
  also have "\<dots> \<longleftrightarrow> (?sm ! k, True) \<in> set (zip ?sm (ts_external_scanner_states ! ?e))"
    using k(2) by (simp add: valid_terminals_def)
  also have "\<dots> \<longleftrightarrow> ts_external_scanner_states ! ?e ! k"
    using assms(2) symbol_map_distinct len by (fastforce simp: set_zip nth_eq_iff_index_eq)
  finally show ?thesis .
qed

text \<open>The lexical states of these parse states: only the error state starts in the lexical state 0, and
  the only ones in which the scanner may report a \<open>DEDENT\<close> that is not valid are the start state and two
  more.\<close>

definition modes_checked :: "nat \<Rightarrow> TSLexerMode list \<Rightarrow> bool" where
  "modes_checked i ms \<longleftrightarrow> list_all (\<lambda>(p, m). (p = 0 \<or> lex_state m \<noteq> 0) \<and>
     (external_lex_state m \<in> {1, 3, 4, 5} \<or> p \<in> {1, 921, 923})) (enumerate i ms)"

lemma modes_checked_append:
  "modes_checked i (xs @ ys) \<longleftrightarrow> modes_checked i xs \<and> modes_checked (i + length xs) ys"
  by (simp add: modes_checked_def enumerate_append_eq)

lemma modes_checked_blocks:
  "modes_checked 0 ts_lex_modes_0" "modes_checked 150 ts_lex_modes_1" "modes_checked 300 ts_lex_modes_2"
  "modes_checked 450 ts_lex_modes_3" "modes_checked 600 ts_lex_modes_4" "modes_checked 750 ts_lex_modes_5"
  "modes_checked 900 ts_lex_modes_6" "modes_checked 1050 ts_lex_modes_7"
  "modes_checked 1200 (take 79 ts_lex_modes_8)"
  unfolding modes_checked_def ts_lex_modes_0_def ts_lex_modes_1_def ts_lex_modes_2_def ts_lex_modes_3_def
    ts_lex_modes_4_def ts_lex_modes_5_def ts_lex_modes_6_def ts_lex_modes_7_def ts_lex_modes_8_def
  by (simp_all add: lexer_mode_def)

lemma modes_check:
  assumes "p < 1279"
  shows "p = 0 \<or> lex_state (ts_lex_modes ! p) \<noteq> 0"
    and "external_lex_state (ts_lex_modes ! p) \<in> set dedent_rows \<Longrightarrow> p \<in> {1, 921, 923}"
proof -
  have "modes_checked 0 table_modes"
    using modes_checked_blocks ts_lex_modes_0_ok ts_lex_modes_1_ok ts_lex_modes_2_ok ts_lex_modes_3_ok
      ts_lex_modes_4_ok ts_lex_modes_5_ok ts_lex_modes_6_ok ts_lex_modes_7_ok
    by (simp add: table_modes_def modes_checked_append)
  moreover have "(p, ts_lex_modes ! p) \<in> set (enumerate 0 table_modes)"
    using assms length_table_modes ts_lex_modes_prefix [of p] by (simp add: in_set_enumerate_eq)
  ultimately show "p = 0 \<or> lex_state (ts_lex_modes ! p) \<noteq> 0"
    and "external_lex_state (ts_lex_modes ! p) \<in> set dedent_rows \<Longrightarrow> p \<in> {1, 921, 923}"
    by (auto simp: modes_checked_def list_all_iff dedent_rows_def)
qed

text \<open>An entry of the parse table, for one of the first 1279 parse states, refers to the other tables. For
  a terminal it is the header of a group of \<open>ts_parse_actions\<close>, without actions exactly when the entry is
  0, whose shifts name parse states and whose reductions name nonterminals and productions with
  enough children. For a nonterminal it is 0 or the number of a parse state other than the error state.\<close>

lemma parse_table_actions:
  assumes "s < length parse_table_rows" and "symbol < SYMBOL_COUNT"
  shows "if symbol < TOKEN_COUNT then
      \<exists>acts. parse_table_entry s symbol < length ts_parse_actions \<and>
        actions_at (parse_table_entry s symbol) = Some acts \<and>
        (acts = [] \<longleftrightarrow> parse_table_entry s symbol = 0) \<and>
        (\<forall>t extra repetition. Shift t extra repetition \<in> set acts \<longrightarrow> t < STATE_COUNT) \<and>
        (\<forall>n c prec p. Reduce n c prec p \<in> set acts \<longrightarrow>
           TOKEN_COUNT \<le> n \<and> n < SYMBOL_COUNT \<and> production_fits p c)
    else parse_table_entry s symbol < STATE_COUNT"
proof (cases "symbol < TOKEN_COUNT")
  case True
  from terminal_actions [OF assms(1) this] True show ?thesis
    by (fastforce simp: list_all_iff symbol_reducible_def)
next
  case False
  with parse_table_entry_fits(2) [OF assms] show ?thesis
    by (cases "parse_table_entry s symbol = 0") (auto simp: entry_fits_def STATE_COUNT_def)
qed

text \<open>A token that the scanner may report in one of these parse states has an action.\<close>

lemma allowed_has_action:
  assumes "p < STATE_COUNT" and "p < length parse_table_rows" and "token_allowed (external_symbols p) tok"
  shows "(\<exists>a acts. actions_at (parse_table_entry p (ts_external_scanner_symbol_map ! token_number tok)) =
      Some (a # acts)) \<or> tok = DEDENT \<and> p \<in> {1, 921, 923}"
proof (cases "external_symbols p tok")
  case True
  then have "parse_table_entry p (ts_external_scanner_symbol_map ! token_number tok) \<noteq> 0"
    using external_entry [OF assms(2) token_number_bound]
    by (simp add: external_symbols_def row_symbols_def)
  with terminal_actions [OF assms(2) symbol_map_token] show ?thesis
    by (metis list.exhaust)
next
  case False
  have "p < 1279" using assms(2) length_parse_table_rows by simp
  with False external_symbols_row [OF assms(1)] assms(3) modes_check(2) show ?thesis by blast
qed

lemma lexable_entry:
  assumes "0 < p" and "p < length parse_table_rows" and "a < TOKEN_COUNT" and "parse_table_entry p a \<noteq> 0"
  shows "external_terminal a \<or> (\<exists>w. scans_as (lex_state (ts_lex_modes ! p)) w a) \<or>
    lex_state (ts_lex_modes ! p) \<in> set word_start_states \<and> a \<in> snd ` set keyword_list"
proof -
  have "a < SYMBOL_COUNT" using assms(3) by (simp add: TOKEN_COUNT_def SYMBOL_COUNT_def)
  from parse_table_entry_fits(2) [OF assms(2) this assms(4)] assms(3)
  have "lexable (lex_state (ts_lex_modes ! p)) a" by (simp add: entry_fits_def)
  moreover have "lex_state (ts_lex_modes ! p) \<noteq> 0"
    using modes_check(1) [of p] assms(1,2) length_parse_table_rows by simp
  ultimately show ?thesis by (simp add: lexable_def)
qed

section \<open>Properties\<close>

text \<open>C31: The parse table and the tables of the external scanner agree: in each of the first 1279 parse
  states, an external token is marked as valid for the scanner exactly when the parser has an action
  for its symbol. So the scanner is asked for every token that the parser can use, and for no other.\<close>

theorem external_tokens_have_actions:
  assumes "s < length parse_table_rows" and "k < EXTERNAL_TOKEN_COUNT"
  shows "ts_external_scanner_states ! external_lex_state (ts_lex_modes ! s) ! k \<longleftrightarrow>
    (\<exists>a acts. actions_at (parse_table_entry s (ts_external_scanner_symbol_map ! k)) = Some (a # acts))"
proof -
  have "ts_external_scanner_symbol_map ! k < TOKEN_COUNT"
    using symbol_map_tokens assms(2) symbol_map_distinct(2) by auto
  from terminal_actions [OF assms(1) this] external_entry [OF assms] show ?thesis
    by (metis list.exhaust list.distinct(1) option.inject)
qed

theorem external_tokens_have_actions_witness:
  "ts_external_scanner_states ! external_lex_state (ts_lex_modes ! 929) ! token_number NEWLINE \<longleftrightarrow>
    (\<exists>a acts. actions_at (parse_table_entry 929
       (ts_external_scanner_symbol_map ! token_number NEWLINE)) = Some (a # acts))"
  using external_tokens_have_actions [of 929 "token_number NEWLINE"]
  by (simp add: length_parse_table_rows EXTERNAL_TOKEN_COUNT_def)

text \<open>C30: The scanner as the parser calls it: for every lexer that meets the contract and every parse
  state, a call with the external tokens of that state returns. A token it reports is valid in that
  state, or a \<open>DEDENT\<close> in one of eight external lexical states, it stands for a terminal of the grammar,
  and the stacks changed by its step; without a token they are unchanged. In the first 1279 parse
  states the parser can go on with the token: the parse table has an action for it in that state. There
  the only exception is a \<open>DEDENT\<close> in the start state or in one of the states 921 and 923.\<close>

theorem scan_in_parse_state:
  assumes "ts_lexer L view" and "scanner_abs sc s" and "mojo_ok s"
    and "length (m_delimiters s) + 1 < 4294967296" and "p < STATE_COUNT"
  shows "\<exists>r sc' l' s'.
    tree_sitter_mojo_external_scanner_scan L sc l (external_symbols p) = Some (r, sc', l') \<and>
    scanner_abs sc' s' \<and>
    (if r then \<exists>tok. t_symbol (view l') = token_number tok \<and> mojo_step s tok s' \<and>
         ts_external_scanner_symbol_map ! token_number tok < TOKEN_COUNT \<and>
         (external_symbols p tok \<or>
          tok = DEDENT \<and> external_lex_state (ts_lex_modes ! p) \<in> set dedent_rows) \<and>
         (p < length parse_table_rows \<longrightarrow>
          (\<exists>a acts. actions_at (parse_table_entry p (ts_external_scanner_symbol_map ! token_number tok)) =
             Some (a # acts)) \<or>
          tok = DEDENT \<and> p \<in> {1, 921, 923})
     else s' = s)"
proof -
  from ts_lexer.scan_effect_scan [OF assms(1-4), of l "external_symbols p"]
  obtain r sc' l' s' where scan:
    "tree_sitter_mojo_external_scanner_scan L sc l (external_symbols p) = Some (r, sc', l')"
    "scanner_abs sc' s'"
    "if r then \<exists>tok. t_symbol (view l') = token_number tok \<and> token_allowed (external_symbols p) tok \<and>
       mojo_step s tok s' else s' = s"
    unfolding scan_effect_def by blast
  show ?thesis
  proof (cases r)
    case True
    with scan(3) obtain tok where tok: "t_symbol (view l') = token_number tok" "mojo_step s tok s'"
      "token_allowed (external_symbols p) tok" by auto
    have "external_symbols p tok \<or>
        tok = DEDENT \<and> external_lex_state (ts_lex_modes ! p) \<in> set dedent_rows"
      using external_symbols_row [OF assms(5)] tok(3) by blast
    note facts = tok(1,2) symbol_map_token [of tok] this allowed_has_action [OF assms(5) _ tok(3)]
    show ?thesis
      by (intro exI [of _ r] exI [of _ sc'] exI [of _ l'] exI [of _ s'] conjI scan(1,2))
        (use facts True in \<open>simp only: if_True, intro exI [of _ tok] conjI impI refl\<close>)
  qed (use scan in auto)
qed

theorem scan_in_parse_state_witness:
  "\<exists>r sc' l' s'.
    tree_sitter_mojo_external_scanner_scan text_ops created (text_of (map of_char ''f''))
      (external_symbols 929) = Some (r, sc', l') \<and>
    scanner_abs sc' s' \<and>
    (if r then \<exists>tok. t_symbol l' = token_number tok \<and> mojo_step mojo_init tok s' \<and>
         ts_external_scanner_symbol_map ! token_number tok < TOKEN_COUNT \<and>
         (external_symbols 929 tok \<or>
          tok = DEDENT \<and> external_lex_state (ts_lex_modes ! 929) \<in> set dedent_rows) \<and>
         (929 < length parse_table_rows \<longrightarrow>
          (\<exists>a acts. actions_at (parse_table_entry 929 (ts_external_scanner_symbol_map ! token_number tok)) =
             Some (a # acts)) \<or>
          tok = DEDENT \<and> (929 :: nat) \<in> {1, 921, 923})
     else s' = mojo_init)"
proof -
  have "length (m_delimiters mojo_init) + 1 < 4294967296" "929 < STATE_COUNT"
    by (simp_all add: mojo_init_def STATE_COUNT_def)
  from scan_in_parse_state [OF text_lexer.ts_lexer_axioms created_abs mojo_ok_init this,
      of "text_of (map of_char ''f'')"]
  show ?thesis unfolding id_def .
qed

text \<open>C32: Every token of the parse table can be read. If the parser has an entry for the terminal \<open>a\<close> in
  one of the first 1279 parse states, other than the error state, then \<open>a\<close> is an external token that is
  marked as valid there, or there is a text that \<open>ts_lex\<close>, started in the lexical state of that parse
  state, scans to its end as \<open>a\<close>, or there is one that it scans to its end as an identifier and for
  which \<open>ts_lex_keywords\<close> reports \<open>a\<close>.\<close>

theorem tokens_reachable:
  assumes "0 < p" and "p < length parse_table_rows" and "a < TOKEN_COUNT" and "parse_table_entry p a \<noteq> 0"
  shows "(\<exists>k<EXTERNAL_TOKEN_COUNT. ts_external_scanner_symbol_map ! k = a \<and>
      ts_external_scanner_states ! external_lex_state (ts_lex_modes ! p) ! k) \<or>
    (\<exists>w. scans_as (lex_state (ts_lex_modes ! p)) w a) \<or>
    (\<exists>w. scans_as (lex_state (ts_lex_modes ! p)) w sym_identifier \<and> keyword_as w a)"
  using lexable_entry [OF assms]
proof (elim disjE)
  assume "external_terminal a"
  then obtain k where "k < EXTERNAL_TOKEN_COUNT" "ts_external_scanner_symbol_map ! k = a"
    using symbol_map_distinct(2) by (auto simp: external_terminal_def in_set_conv_nth)
  then show ?thesis using external_entry [OF assms(2)] assms(4) by blast
next
  assume "lex_state (ts_lex_modes ! p) \<in> set word_start_states \<and> a \<in> snd ` set keyword_list"
  then obtain w where "(w, a) \<in> set keyword_list" "lex_state (ts_lex_modes ! p) \<in> set word_start_states"
    by auto
  from keyword_scans [OF this] show ?thesis by blast
qed blast

theorem tokens_reachable_witness:
  "(\<exists>k<EXTERNAL_TOKEN_COUNT. ts_external_scanner_symbol_map ! k = anon_sym_import \<and>
      ts_external_scanner_states ! external_lex_state (ts_lex_modes ! 1) ! k) \<or>
    (\<exists>w. scans_as (lex_state (ts_lex_modes ! 1)) w anon_sym_import) \<or>
    (\<exists>w. scans_as (lex_state (ts_lex_modes ! 1)) w sym_identifier \<and> keyword_as w anon_sym_import)"
proof -
  have "parse_table_rows ! 1 = parse_table_1" by (simp add: parse_table_rows_def parse_rows_0_def)
  moreover have "anon_sym_import \<in> fst ` set parse_table_1" unfolding parse_table_1_def by simp
  moreover have "1 < length parse_table_rows" "anon_sym_import < TOKEN_COUNT" "anon_sym_import < SYMBOL_COUNT"
    by (simp_all add: length_parse_table_rows anon_sym_import_def TOKEN_COUNT_def SYMBOL_COUNT_def)
  ultimately have "parse_table_entry 1 anon_sym_import \<noteq> 0"
    using parse_table_entry_fits(1) [of 1 anon_sym_import] by simp
  then show ?thesis
    using tokens_reachable [of 1 anon_sym_import] \<open>1 < length parse_table_rows\<close> \<open>anon_sym_import < TOKEN_COUNT\<close>
    by simp
qed

end
