(* ===== verification/Mojo_Parse_Automaton.thy ===== *)
theory Mojo_Parse_Automaton
  imports Mojo_Parse_Table Mojo_Table_Properties Mojo_Primary_States
begin

text \<open>
  The parse table as an automaton: the state that follows a parse state when a symbol is shifted. The
  interface of an automaton whose states have representatives, and the comparison of two rows of the
  table, entry by entry, up to the primary states of \<open>ts_primary_state_ids\<close>.
\<close>

section \<open>Walks of an automaton\<close>

fun walk :: "('s \<Rightarrow> 'x \<Rightarrow> 's option) \<Rightarrow> 's \<Rightarrow> 'x list \<Rightarrow> 's option" where
  "walk step s [] = Some s"
| "walk step s (x # xs) = (case step s x of None \<Rightarrow> None | Some t \<Rightarrow> walk step t xs)"

text \<open>Every state has a representative that can follow its steps, up to representatives.\<close>

locale automaton_quotient =
  fixes step :: "'s \<Rightarrow> 'x \<Rightarrow> 's option" and rep :: "'s \<Rightarrow> 's"
  assumes step_rep: "step s x = Some t \<Longrightarrow> \<exists>u. step (rep s) x = Some u \<and> rep u = rep t"
begin

text \<open>So the representatives alone can follow every walk.\<close>

lemma walk_rep:
  "walk step s xs = Some t \<Longrightarrow> walk (\<lambda>p x. map_option rep (step p x)) (rep s) xs = Some (rep t)"
proof (induction xs arbitrary: s)
  case (Cons x xs)
  then obtain s' where s': "step s x = Some s'" "walk step s' xs = Some t"
    by (auto split: option.splits)
  from step_rep [OF s'(1)] obtain u where "step (rep s) x = Some u" "rep u = rep s'" by blast
  with Cons.IH [OF s'(2)] show ?case by simp
qed simp

lemma walks_agree:
  assumes "rep s = rep s'" and "walk step s xs = Some t" and "walk step s' xs = Some t'"
  shows "rep t = rep t'"
  using walk_rep [OF assms(2)] walk_rep [OF assms(3)] assms(1) by simp

end

section \<open>Shifts of the parse table\<close>

text \<open>The shift of a group of actions, its last action, as its target and its flag \<open>extra\<close>. A shift with this
  flag leaves the parser in its state.\<close>

fun entry_shift :: "TSParseActionEntry \<Rightarrow> (nat \<times> bool) option" where
  "entry_shift (Action (Shift t extra repetition)) = Some (t, extra)"
| "entry_shift e = None"

definition actions_shift :: "nat \<Rightarrow> (nat \<times> bool) option" where
  "actions_shift v = (case actions_at v of
     None \<Rightarrow> None
   | Some acts \<Rightarrow> if acts = [] then None else entry_shift (Action (last acts)))"

text \<open>The state after the symbol \<open>x\<close> in the state \<open>s\<close>: the target of the shift for a terminal, the entry
  itself for a nonterminal.\<close>

definition next_state :: "nat \<Rightarrow> nat \<Rightarrow> nat option" where
  "next_state s x =
     (if x < TOKEN_COUNT then
        map_option (\<lambda>(t, extra). if extra then s else t) (actions_shift (parse_table_entry s x))
      else if parse_table_entry s x = 0 then None else Some (parse_table_entry s x))"

text \<open>The automaton of the rows that are modelled.\<close>

definition table_step :: "nat \<Rightarrow> nat \<Rightarrow> nat option" where
  "table_step s x = (if s < length parse_table_rows \<and> x < SYMBOL_COUNT then next_state s x else None)"

lemma entry_shift_simps:
  "entry_shift (ENTRY count reusable) = None"
  "entry_shift (SHIFT t) = Some (t, False)"
  "entry_shift (SHIFT_REPEAT t) = Some (t, False)"
  "entry_shift SHIFT_EXTRA = Some (0, True)"
  "entry_shift (REDUCE a c prec p) = None"
  "entry_shift RECOVER = None"
  "entry_shift ACCEPT_INPUT = None"
  by (simp_all add: ENTRY_def SHIFT_def SHIFT_REPEAT_def SHIFT_EXTRA_def REDUCE_def RECOVER_def ACCEPT_INPUT_def)

lemma row_shift:
  assumes "(v, es) \<in> set parse_action_rows"
  shows "actions_shift v = entry_shift (last es)"
proof -
  from row_actions [OF assms] obtain count reusable acts
    where "es = Entry count reusable # map Action acts" "actions_at v = Some acts" by blast
  then show ?thesis by (auto simp: actions_shift_def last_map)
qed

lemma rows_shifts:
  "set rs \<subseteq> set parse_action_rows \<Longrightarrow> list_all (\<lambda>(v, es). actions_shift v = entry_shift (last es)) rs"
  using row_shift by (fastforce simp: list_all_iff)

section \<open>Comparison of rows\<close>

fun shift_pair :: "(nat \<times> bool) option \<Rightarrow> (nat \<times> bool) option \<Rightarrow> bool" where
  "shift_pair None b \<longleftrightarrow> True"
| "shift_pair (Some (t, extra)) (Some (u, extra')) \<longleftrightarrow>
     \<not> extra \<and> \<not> extra' \<and> ts_primary_state_ids ! t = ts_primary_state_ids ! u"
| "shift_pair a b \<longleftrightarrow> False"

text \<open>The entry \<open>w\<close> for the symbol \<open>x\<close> can follow the entry \<open>v\<close>.\<close>

definition value_follows :: "nat \<Rightarrow> nat \<Rightarrow> nat \<Rightarrow> bool" where
  "value_follows x v w \<longleftrightarrow> v = w \<or>
     (if x < TOKEN_COUNT then shift_pair (actions_shift v) (actions_shift w)
      else v \<noteq> 0 \<and> w \<noteq> 0 \<and> ts_primary_state_ids ! v = ts_primary_state_ids ! w)"

definition row_entry :: "(nat \<times> nat) list \<Rightarrow> nat \<Rightarrow> nat" where
  "row_entry row x = designated 0 SYMBOL_COUNT row ! x"

definition row_follows :: "(nat \<times> nat) list \<Rightarrow> (nat \<times> nat) list \<Rightarrow> bool" where
  "row_follows r q \<longleftrightarrow> (\<forall>x<SYMBOL_COUNT. value_follows x (row_entry r x) (row_entry q x))"

fun entry_follows :: "nat \<times> nat \<Rightarrow> nat \<times> nat \<Rightarrow> bool" where
  "entry_follows (x, v) (y, w) \<longleftrightarrow> x = y \<and> value_follows x v w"

lemma value_follows_refl: "value_follows x v v"
  by (simp add: value_follows_def)

lemma row_follows_refl: "row_follows r r"
  by (simp add: row_follows_def value_follows_refl)

lemma entry_follows_simps:
  "entry_follows (x, v) (x, v)"
  "x < TOKEN_COUNT \<Longrightarrow> shift_pair (actions_shift v) (actions_shift w) \<Longrightarrow>
   entry_follows (x, ACTIONS v) (x, ACTIONS w)"
  "TOKEN_COUNT \<le> x \<Longrightarrow> v \<noteq> 0 \<Longrightarrow> w \<noteq> 0 \<Longrightarrow> ts_primary_state_ids ! v = ts_primary_state_ids ! w \<Longrightarrow>
   entry_follows (x, STATE v) (x, STATE w)"
  by (simp_all add: value_follows_def ACTIONS_def STATE_def)

lemma map_of_follows:
  assumes "list_all2 entry_follows r q"
  shows "(map_of r x = None \<and> map_of q x = None) \<or>
    (\<exists>v w. map_of r x = Some v \<and> map_of q x = Some w \<and> value_follows x v w)"
  using assms by (induction rule: list_all2_induct) auto

declare entry_follows.simps [simp del]

lemma list_follows:
  assumes "list_all2 entry_follows r q"
  shows "row_follows r q"
proof -
  have "list_all2 entry_follows (rev r) (rev q)" using assms by (simp only: list_all2_rev)
  note rev = map_of_follows [OF this]
  show ?thesis unfolding row_follows_def row_entry_def
  proof (intro allI impI)
    fix x assume "x < SYMBOL_COUNT"
    with rev [of x] show "value_follows x (designated 0 SYMBOL_COUNT r ! x) (designated 0 SYMBOL_COUNT q ! x)"
      by (auto simp: designated_nth value_follows_refl)
  qed
qed

lemma row_entry_append_Cons:
  "x < SYMBOL_COUNT \<Longrightarrow> row_entry (r @ d # r') x = row_entry (r @ r') x \<or>
     x = fst d \<and> row_entry (r @ d # r') x = snd d"
  by (cases d) (auto simp: row_entry_def designated_nth map_add_def split: option.splits)

text \<open>An entry without a shift may be left out of the first row.\<close>

lemma follows_drop_left:
  assumes "row_follows (take n r @ drop (Suc n) r) q" "n < length r" "fst (r ! n) < TOKEN_COUNT"
    "actions_shift (snd (r ! n)) = None"
  shows "row_follows r q"
  unfolding row_follows_def
proof (intro allI impI)
  fix x assume x: "x < SYMBOL_COUNT"
  have "row_entry r x = row_entry (take n r @ drop (Suc n) r) x \<or>
      x = fst (r ! n) \<and> row_entry r x = snd (r ! n)"
    using row_entry_append_Cons [OF x, of "take n r" "r ! n" "drop (Suc n) r"] assms(2) by (simp add: id_take_nth_drop [symmetric])
  then show "value_follows x (row_entry r x) (row_entry q x)"
    using assms x by (auto simp: row_follows_def value_follows_def)
qed

text \<open>So may an entry of the second row for a terminal that the first row does not have.\<close>

lemma follows_drop_right:
  assumes "row_follows r (take n q @ drop (Suc n) q)" "n < length q" "fst (q ! n) < TOKEN_COUNT"
    "fst (q ! n) \<notin> fst ` set r" "actions_shift 0 = None"
  shows "row_follows r q"
  unfolding row_follows_def
proof (intro allI impI)
  fix x assume x: "x < SYMBOL_COUNT"
  have "row_entry q x = row_entry (take n q @ drop (Suc n) q) x \<or> x = fst (q ! n)"
    using row_entry_append_Cons [OF x, of "take n q" "q ! n" "drop (Suc n) q"] assms(2) by (auto simp: id_take_nth_drop [symmetric])
  moreover have "row_entry r x = 0" if "x = fst (q ! n)"
  proof -
    have "map_of (rev r) x = None" using that assms(4) by (simp add: map_of_eq_None_iff)
    then show ?thesis using x by (simp add: row_entry_def designated_nth)
  qed
  ultimately show "value_follows x (row_entry r x) (row_entry q x)"
    using assms x by (auto simp: row_follows_def value_follows_def)
qed

section \<open>Elements of a list at their places\<close>

fun holds_from :: "(nat \<Rightarrow> 'a \<Rightarrow> bool) \<Rightarrow> nat \<Rightarrow> 'a list \<Rightarrow> bool" where
  "holds_from P i [] \<longleftrightarrow> True"
| "holds_from P i (x # xs) \<longleftrightarrow> P i x \<and> holds_from P (i + 1) xs"

lemma holds_from_all: "(\<And>k. k < length xs \<Longrightarrow> P (i + k) (xs ! k)) \<Longrightarrow> holds_from P i xs"
proof (induction xs arbitrary: i)
  case (Cons x xs)
  show ?case using Cons.prems [of 0] Cons.IH [of "i + 1"] Cons.prems [of "Suc _"] by simp
qed simp

lemma nth_append_places: "holds_from (\<lambda>i x. (xs @ ys @ zs) ! i = x) (length xs) ys"
  by (rule holds_from_all) (simp add: nth_append)

end
