(* ===== verification/Mojo_Primary_Row_Checks.thy ===== *)
theory Mojo_Primary_Row_Checks
  imports Mojo_Parse_Automaton Mojo_Parse_Row_Checks Mojo_Primary_Proofs
begin

text \<open>
  The facts by which a row of the parse table is compared with the row of its primary state: the primary
  states and the shifts of the entries in which such rows differ.
\<close>

section \<open>Primary states\<close>

lemma block_places:
  assumes "(j, xs) \<in> set primary_runs"
  shows "holds_from (\<lambda>i x. ts_primary_state_ids ! i = x) j xs"
  by (rule holds_from_all) (use primary_run_nth [OF assms] in simp)

lemma primary_ids_0:
  "ts_primary_state_ids ! 5 = 5 \<and> ts_primary_state_ids ! 27 = 27 \<and>
   ts_primary_state_ids ! 28 = 28 \<and> ts_primary_state_ids ! 29 = 29 \<and>
   ts_primary_state_ids ! 32 = 32 \<and> ts_primary_state_ids ! 42 = 42 \<and>
   ts_primary_state_ids ! 49 = 49 \<and> ts_primary_state_ids ! 51 = 51 \<and>
   ts_primary_state_ids ! 56 = 56 \<and> ts_primary_state_ids ! 63 = 63 \<and>
   ts_primary_state_ids ! 65 = 65 \<and> ts_primary_state_ids ! 70 = 70 \<and>
   ts_primary_state_ids ! 79 = 79 \<and> ts_primary_state_ids ! 80 = 80 \<and>
   ts_primary_state_ids ! 82 = 82 \<and> ts_primary_state_ids ! 83 = 83 \<and>
   ts_primary_state_ids ! 85 = 85 \<and> ts_primary_state_ids ! 87 = 87 \<and>
   ts_primary_state_ids ! 96 = 96 \<and> ts_primary_state_ids ! 97 = 97 \<and>
   ts_primary_state_ids ! 99 = 99 \<and> ts_primary_state_ids ! 100 = 100 \<and>
   ts_primary_state_ids ! 102 = 102 \<and> ts_primary_state_ids ! 104 = 104 \<and>
   ts_primary_state_ids ! 115 = 115 \<and> ts_primary_state_ids ! 117 = 117 \<and>
   ts_primary_state_ids ! 118 = 118 \<and> ts_primary_state_ids ! 120 = 120 \<and>
   ts_primary_state_ids ! 122 = 122 \<and> ts_primary_state_ids ! 123 = 123 \<and>
   ts_primary_state_ids ! 125 = 125 \<and> ts_primary_state_ids ! 126 = 126 \<and>
   ts_primary_state_ids ! 135 = 135 \<and> ts_primary_state_ids ! 137 = 137 \<and>
   ts_primary_state_ids ! 138 = 138 \<and> ts_primary_state_ids ! 140 = 140 \<and>
   ts_primary_state_ids ! 142 = 142 \<and> ts_primary_state_ids ! 143 = 143 \<and>
   ts_primary_state_ids ! 145 = 145 \<and> ts_primary_state_ids ! 146 = 146 \<and>
   ts_primary_state_ids ! 148 = 148"
proof -
  have "holds_from (\<lambda>i x. ts_primary_state_ids ! i = x) 0 ts_primary_state_ids_0"
    by (rule block_places) (rule primary_runs_mem)
  then show ?thesis unfolding ts_primary_state_ids_0_def by (simp del: One_nat_def)
qed

lemma primary_ids_1:
  "ts_primary_state_ids ! 161 = 161 \<and> ts_primary_state_ids ! 165 = 165 \<and>
   ts_primary_state_ids ! 167 = 167 \<and> ts_primary_state_ids ! 168 = 168 \<and>
   ts_primary_state_ids ! 170 = 170 \<and> ts_primary_state_ids ! 171 = 171 \<and>
   ts_primary_state_ids ! 184 = 184 \<and> ts_primary_state_ids ! 188 = 188 \<and>
   ts_primary_state_ids ! 190 = 190 \<and> ts_primary_state_ids ! 191 = 191 \<and>
   ts_primary_state_ids ! 193 = 193 \<and> ts_primary_state_ids ! 194 = 194 \<and>
   ts_primary_state_ids ! 196 = 196 \<and> ts_primary_state_ids ! 201 = 201 \<and>
   ts_primary_state_ids ! 206 = 206 \<and> ts_primary_state_ids ! 217 = 217 \<and>
   ts_primary_state_ids ! 219 = 219 \<and> ts_primary_state_ids ! 221 = 221 \<and>
   ts_primary_state_ids ! 226 = 226 \<and> ts_primary_state_ids ! 231 = 231 \<and>
   ts_primary_state_ids ! 242 = 242 \<and> ts_primary_state_ids ! 245 = 245 \<and>
   ts_primary_state_ids ! 246 = 246 \<and> ts_primary_state_ids ! 248 = 248 \<and>
   ts_primary_state_ids ! 249 = 249 \<and> ts_primary_state_ids ! 251 = 251 \<and>
   ts_primary_state_ids ! 253 = 253 \<and> ts_primary_state_ids ! 258 = 258 \<and>
   ts_primary_state_ids ! 260 = 260 \<and> ts_primary_state_ids ! 265 = 265 \<and>
   ts_primary_state_ids ! 272 = 272 \<and> ts_primary_state_ids ! 273 = 273 \<and>
   ts_primary_state_ids ! 275 = 275 \<and> ts_primary_state_ids ! 276 = 276 \<and>
   ts_primary_state_ids ! 278 = 278 \<and> ts_primary_state_ids ! 280 = 280 \<and>
   ts_primary_state_ids ! 285 = 285 \<and> ts_primary_state_ids ! 287 = 287 \<and>
   ts_primary_state_ids ! 292 = 292"
proof -
  have "holds_from (\<lambda>i x. ts_primary_state_ids ! i = x) 150 ts_primary_state_ids_1"
    by (rule block_places) (rule primary_runs_mem)
  then show ?thesis unfolding ts_primary_state_ids_1_def by (simp del: One_nat_def)
qed

lemma primary_ids_2:
  "ts_primary_state_ids ! 300 = 300 \<and> ts_primary_state_ids ! 302 = 302 \<and>
   ts_primary_state_ids ! 303 = 303 \<and> ts_primary_state_ids ! 305 = 305 \<and>
   ts_primary_state_ids ! 307 = 307 \<and> ts_primary_state_ids ! 308 = 308 \<and>
   ts_primary_state_ids ! 310 = 310 \<and> ts_primary_state_ids ! 311 = 311 \<and>
   ts_primary_state_ids ! 314 = 314 \<and> ts_primary_state_ids ! 315 = 315 \<and>
   ts_primary_state_ids ! 317 = 317 \<and> ts_primary_state_ids ! 318 = 318 \<and>
   ts_primary_state_ids ! 320 = 320 \<and> ts_primary_state_ids ! 322 = 322 \<and>
   ts_primary_state_ids ! 329 = 329 \<and> ts_primary_state_ids ! 331 = 331 \<and>
   ts_primary_state_ids ! 332 = 332 \<and> ts_primary_state_ids ! 334 = 334 \<and>
   ts_primary_state_ids ! 336 = 336 \<and> ts_primary_state_ids ! 337 = 337 \<and>
   ts_primary_state_ids ! 339 = 339 \<and> ts_primary_state_ids ! 340 = 340 \<and>
   ts_primary_state_ids ! 343 = 343 \<and> ts_primary_state_ids ! 344 = 344 \<and>
   ts_primary_state_ids ! 346 = 346 \<and> ts_primary_state_ids ! 347 = 347 \<and>
   ts_primary_state_ids ! 349 = 349 \<and> ts_primary_state_ids ! 351 = 351 \<and>
   ts_primary_state_ids ! 359 = 359 \<and> ts_primary_state_ids ! 363 = 363 \<and>
   ts_primary_state_ids ! 365 = 365 \<and> ts_primary_state_ids ! 366 = 366 \<and>
   ts_primary_state_ids ! 368 = 368 \<and> ts_primary_state_ids ! 371 = 371 \<and>
   ts_primary_state_ids ! 373 = 373 \<and> ts_primary_state_ids ! 374 = 374 \<and>
   ts_primary_state_ids ! 376 = 376 \<and> ts_primary_state_ids ! 378 = 378 \<and>
   ts_primary_state_ids ! 379 = 379 \<and> ts_primary_state_ids ! 381 = 381 \<and>
   ts_primary_state_ids ! 382 = 382 \<and> ts_primary_state_ids ! 387 = 387 \<and>
   ts_primary_state_ids ! 391 = 391 \<and> ts_primary_state_ids ! 393 = 393 \<and>
   ts_primary_state_ids ! 394 = 394 \<and> ts_primary_state_ids ! 396 = 396 \<and>
   ts_primary_state_ids ! 399 = 399 \<and> ts_primary_state_ids ! 401 = 401 \<and>
   ts_primary_state_ids ! 402 = 402 \<and> ts_primary_state_ids ! 404 = 404 \<and>
   ts_primary_state_ids ! 406 = 406 \<and> ts_primary_state_ids ! 407 = 407 \<and>
   ts_primary_state_ids ! 409 = 409 \<and> ts_primary_state_ids ! 410 = 410 \<and>
   ts_primary_state_ids ! 416 = 416 \<and> ts_primary_state_ids ! 421 = 421 \<and>
   ts_primary_state_ids ! 425 = 425 \<and> ts_primary_state_ids ! 427 = 427 \<and>
   ts_primary_state_ids ! 428 = 428 \<and> ts_primary_state_ids ! 430 = 430 \<and>
   ts_primary_state_ids ! 435 = 435 \<and> ts_primary_state_ids ! 440 = 440 \<and>
   ts_primary_state_ids ! 444 = 444 \<and> ts_primary_state_ids ! 446 = 446 \<and>
   ts_primary_state_ids ! 447 = 447 \<and> ts_primary_state_ids ! 449 = 449"
proof -
  have "holds_from (\<lambda>i x. ts_primary_state_ids ! i = x) 300 ts_primary_state_ids_2"
    by (rule block_places) (rule primary_runs_mem)
  then show ?thesis unfolding ts_primary_state_ids_2_def by (simp del: One_nat_def)
qed

lemma primary_ids_3:
  "ts_primary_state_ids ! 455 = 455 \<and> ts_primary_state_ids ! 462 = 462 \<and>
   ts_primary_state_ids ! 465 = 5 \<and> ts_primary_state_ids ! 487 = 27 \<and>
   ts_primary_state_ids ! 488 = 28 \<and> ts_primary_state_ids ! 489 = 29 \<and>
   ts_primary_state_ids ! 492 = 32 \<and> ts_primary_state_ids ! 501 = 42 \<and>
   ts_primary_state_ids ! 508 = 49 \<and> ts_primary_state_ids ! 510 = 51 \<and>
   ts_primary_state_ids ! 515 = 56 \<and> ts_primary_state_ids ! 520 = 63 \<and>
   ts_primary_state_ids ! 522 = 65 \<and> ts_primary_state_ids ! 527 = 70 \<and>
   ts_primary_state_ids ! 536 = 79 \<and> ts_primary_state_ids ! 537 = 80 \<and>
   ts_primary_state_ids ! 539 = 82 \<and> ts_primary_state_ids ! 540 = 83 \<and>
   ts_primary_state_ids ! 542 = 85 \<and> ts_primary_state_ids ! 544 = 87 \<and>
   ts_primary_state_ids ! 551 = 96 \<and> ts_primary_state_ids ! 552 = 97 \<and>
   ts_primary_state_ids ! 554 = 99 \<and> ts_primary_state_ids ! 555 = 100 \<and>
   ts_primary_state_ids ! 557 = 102 \<and> ts_primary_state_ids ! 559 = 104 \<and>
   ts_primary_state_ids ! 570 = 115 \<and> ts_primary_state_ids ! 572 = 117 \<and>
   ts_primary_state_ids ! 573 = 118 \<and> ts_primary_state_ids ! 575 = 120 \<and>
   ts_primary_state_ids ! 577 = 122 \<and> ts_primary_state_ids ! 578 = 123 \<and>
   ts_primary_state_ids ! 580 = 125 \<and> ts_primary_state_ids ! 581 = 126 \<and>
   ts_primary_state_ids ! 589 = 135 \<and> ts_primary_state_ids ! 591 = 137 \<and>
   ts_primary_state_ids ! 592 = 138 \<and> ts_primary_state_ids ! 594 = 140 \<and>
   ts_primary_state_ids ! 596 = 142 \<and> ts_primary_state_ids ! 597 = 143 \<and>
   ts_primary_state_ids ! 599 = 145"
proof -
  have "holds_from (\<lambda>i x. ts_primary_state_ids ! i = x) 450 ts_primary_state_ids_3"
    by (rule block_places) (rule primary_runs_mem)
  then show ?thesis unfolding ts_primary_state_ids_3_def by (simp del: One_nat_def)
qed

lemma primary_ids_4:
  "ts_primary_state_ids ! 600 = 146 \<and> ts_primary_state_ids ! 602 = 148 \<and>
   ts_primary_state_ids ! 615 = 161 \<and> ts_primary_state_ids ! 619 = 165 \<and>
   ts_primary_state_ids ! 621 = 167 \<and> ts_primary_state_ids ! 622 = 168 \<and>
   ts_primary_state_ids ! 624 = 170 \<and> ts_primary_state_ids ! 625 = 171 \<and>
   ts_primary_state_ids ! 638 = 184 \<and> ts_primary_state_ids ! 642 = 188 \<and>
   ts_primary_state_ids ! 644 = 190 \<and> ts_primary_state_ids ! 645 = 191 \<and>
   ts_primary_state_ids ! 647 = 193 \<and> ts_primary_state_ids ! 648 = 194 \<and>
   ts_primary_state_ids ! 650 = 196 \<and> ts_primary_state_ids ! 655 = 201 \<and>
   ts_primary_state_ids ! 660 = 206 \<and> ts_primary_state_ids ! 671 = 217 \<and>
   ts_primary_state_ids ! 673 = 219 \<and> ts_primary_state_ids ! 675 = 221 \<and>
   ts_primary_state_ids ! 680 = 226 \<and> ts_primary_state_ids ! 685 = 231 \<and>
   ts_primary_state_ids ! 696 = 242 \<and> ts_primary_state_ids ! 699 = 245 \<and>
   ts_primary_state_ids ! 700 = 246 \<and> ts_primary_state_ids ! 702 = 248 \<and>
   ts_primary_state_ids ! 703 = 249 \<and> ts_primary_state_ids ! 705 = 251 \<and>
   ts_primary_state_ids ! 707 = 253 \<and> ts_primary_state_ids ! 712 = 258 \<and>
   ts_primary_state_ids ! 714 = 260 \<and> ts_primary_state_ids ! 719 = 265 \<and>
   ts_primary_state_ids ! 726 = 272 \<and> ts_primary_state_ids ! 727 = 273 \<and>
   ts_primary_state_ids ! 729 = 275 \<and> ts_primary_state_ids ! 730 = 276 \<and>
   ts_primary_state_ids ! 732 = 278 \<and> ts_primary_state_ids ! 734 = 280 \<and>
   ts_primary_state_ids ! 739 = 285 \<and> ts_primary_state_ids ! 741 = 287 \<and>
   ts_primary_state_ids ! 746 = 292"
proof -
  have "holds_from (\<lambda>i x. ts_primary_state_ids ! i = x) 600 ts_primary_state_ids_4"
    by (rule block_places) (rule primary_runs_mem)
  then show ?thesis unfolding ts_primary_state_ids_4_def by (simp del: One_nat_def)
qed

lemma primary_ids_5:
  "ts_primary_state_ids ! 754 = 300 \<and> ts_primary_state_ids ! 756 = 302 \<and>
   ts_primary_state_ids ! 757 = 303 \<and> ts_primary_state_ids ! 759 = 305 \<and>
   ts_primary_state_ids ! 761 = 307 \<and> ts_primary_state_ids ! 762 = 308 \<and>
   ts_primary_state_ids ! 764 = 310 \<and> ts_primary_state_ids ! 765 = 311 \<and>
   ts_primary_state_ids ! 768 = 314 \<and> ts_primary_state_ids ! 769 = 315 \<and>
   ts_primary_state_ids ! 771 = 317 \<and> ts_primary_state_ids ! 772 = 318 \<and>
   ts_primary_state_ids ! 774 = 320 \<and> ts_primary_state_ids ! 776 = 322 \<and>
   ts_primary_state_ids ! 783 = 329 \<and> ts_primary_state_ids ! 785 = 331 \<and>
   ts_primary_state_ids ! 786 = 332 \<and> ts_primary_state_ids ! 788 = 334 \<and>
   ts_primary_state_ids ! 790 = 336 \<and> ts_primary_state_ids ! 791 = 337 \<and>
   ts_primary_state_ids ! 793 = 339 \<and> ts_primary_state_ids ! 794 = 340 \<and>
   ts_primary_state_ids ! 797 = 343 \<and> ts_primary_state_ids ! 798 = 344 \<and>
   ts_primary_state_ids ! 800 = 346 \<and> ts_primary_state_ids ! 801 = 347 \<and>
   ts_primary_state_ids ! 803 = 349 \<and> ts_primary_state_ids ! 805 = 351 \<and>
   ts_primary_state_ids ! 813 = 359 \<and> ts_primary_state_ids ! 817 = 363 \<and>
   ts_primary_state_ids ! 819 = 365 \<and> ts_primary_state_ids ! 820 = 366 \<and>
   ts_primary_state_ids ! 822 = 368 \<and> ts_primary_state_ids ! 825 = 371 \<and>
   ts_primary_state_ids ! 827 = 373 \<and> ts_primary_state_ids ! 828 = 374 \<and>
   ts_primary_state_ids ! 830 = 376 \<and> ts_primary_state_ids ! 832 = 378 \<and>
   ts_primary_state_ids ! 833 = 379 \<and> ts_primary_state_ids ! 835 = 381 \<and>
   ts_primary_state_ids ! 836 = 382 \<and> ts_primary_state_ids ! 841 = 387 \<and>
   ts_primary_state_ids ! 845 = 391 \<and> ts_primary_state_ids ! 847 = 393 \<and>
   ts_primary_state_ids ! 848 = 394 \<and> ts_primary_state_ids ! 850 = 396 \<and>
   ts_primary_state_ids ! 853 = 399 \<and> ts_primary_state_ids ! 855 = 401 \<and>
   ts_primary_state_ids ! 856 = 402 \<and> ts_primary_state_ids ! 858 = 404 \<and>
   ts_primary_state_ids ! 860 = 406 \<and> ts_primary_state_ids ! 861 = 407 \<and>
   ts_primary_state_ids ! 863 = 409 \<and> ts_primary_state_ids ! 864 = 410 \<and>
   ts_primary_state_ids ! 870 = 416 \<and> ts_primary_state_ids ! 875 = 421 \<and>
   ts_primary_state_ids ! 879 = 425 \<and> ts_primary_state_ids ! 881 = 427 \<and>
   ts_primary_state_ids ! 882 = 428 \<and> ts_primary_state_ids ! 884 = 430 \<and>
   ts_primary_state_ids ! 889 = 435 \<and> ts_primary_state_ids ! 894 = 440 \<and>
   ts_primary_state_ids ! 898 = 444"
proof -
  have "holds_from (\<lambda>i x. ts_primary_state_ids ! i = x) 750 ts_primary_state_ids_5"
    by (rule block_places) (rule primary_runs_mem)
  then show ?thesis unfolding ts_primary_state_ids_5_def by (simp del: One_nat_def)
qed

lemma primary_ids_6:
  "ts_primary_state_ids ! 900 = 446 \<and> ts_primary_state_ids ! 901 = 447 \<and>
   ts_primary_state_ids ! 903 = 449 \<and> ts_primary_state_ids ! 909 = 455 \<and>
   ts_primary_state_ids ! 916 = 462 \<and> ts_primary_state_ids ! 920 = 920 \<and>
   ts_primary_state_ids ! 923 = 923 \<and> ts_primary_state_ids ! 924 = 923 \<and>
   ts_primary_state_ids ! 925 = 920 \<and> ts_primary_state_ids ! 926 = 920 \<and>
   ts_primary_state_ids ! 927 = 920"
proof -
  have "holds_from (\<lambda>i x. ts_primary_state_ids ! i = x) 900 ts_primary_state_ids_6"
    by (rule block_places) (rule primary_runs_mem)
  then show ?thesis unfolding ts_primary_state_ids_6_def by (simp del: One_nat_def)
qed

lemma primary_ids_12:
  "ts_primary_state_ids ! 1845 = 1845 \<and> ts_primary_state_ids ! 1846 = 1845"
proof -
  have "holds_from (\<lambda>i x. ts_primary_state_ids ! i = x) 1800 ts_primary_state_ids_12"
    by (rule block_places) (rule primary_runs_mem)
  then show ?thesis unfolding ts_primary_state_ids_12_def by (simp del: One_nat_def)
qed

lemma primary_ids_24:
  "ts_primary_state_ids ! 3668 = 3668 \<and> ts_primary_state_ids ! 3670 = 3668"
proof -
  have "holds_from (\<lambda>i x. ts_primary_state_ids ! i = x) 3600 ts_primary_state_ids_24"
    by (rule block_places) (rule primary_runs_mem)
  then show ?thesis unfolding ts_primary_state_ids_24_def by (simp del: One_nat_def)
qed

lemma primary_ids_26:
  "ts_primary_state_ids ! 3916 = 3916 \<and> ts_primary_state_ids ! 3949 = 3949 \<and>
   ts_primary_state_ids ! 3960 = 3960 \<and> ts_primary_state_ids ! 3974 = 3960 \<and>
   ts_primary_state_ids ! 3981 = 3916 \<and> ts_primary_state_ids ! 3994 = 3949 \<and>
   ts_primary_state_ids ! 4004 = 4004 \<and> ts_primary_state_ids ! 4006 = 4006 \<and>
   ts_primary_state_ids ! 4031 = 4004"
proof -
  have "holds_from (\<lambda>i x. ts_primary_state_ids ! i = x) 3900 ts_primary_state_ids_26"
    by (rule block_places) (rule primary_runs_mem)
  then show ?thesis unfolding ts_primary_state_ids_26_def by (simp del: One_nat_def)
qed

lemma primary_ids_27:
  "ts_primary_state_ids ! 4056 = 4006 \<and> ts_primary_state_ids ! 4066 = 4066 \<and>
   ts_primary_state_ids ! 4073 = 4004 \<and> ts_primary_state_ids ! 4081 = 4006 \<and>
   ts_primary_state_ids ! 4108 = 4108 \<and> ts_primary_state_ids ! 4118 = 4118 \<and>
   ts_primary_state_ids ! 4124 = 4124 \<and> ts_primary_state_ids ! 4128 = 4128 \<and>
   ts_primary_state_ids ! 4148 = 4148 \<and> ts_primary_state_ids ! 4151 = 4124 \<and>
   ts_primary_state_ids ! 4161 = 4161 \<and> ts_primary_state_ids ! 4171 = 4171 \<and>
   ts_primary_state_ids ! 4172 = 4171 \<and> ts_primary_state_ids ! 4173 = 4118 \<and>
   ts_primary_state_ids ! 4190 = 4004 \<and> ts_primary_state_ids ! 4191 = 4128"
proof -
  have "holds_from (\<lambda>i x. ts_primary_state_ids ! i = x) 4050 ts_primary_state_ids_27"
    by (rule block_places) (rule primary_runs_mem)
  then show ?thesis unfolding ts_primary_state_ids_27_def by (simp del: One_nat_def)
qed

lemma primary_ids_28:
  "ts_primary_state_ids ! 4203 = 4161 \<and> ts_primary_state_ids ! 4229 = 4006 \<and>
   ts_primary_state_ids ! 4263 = 4066 \<and> ts_primary_state_ids ! 4270 = 4148 \<and>
   ts_primary_state_ids ! 4271 = 4108 \<and> ts_primary_state_ids ! 4284 = 4284 \<and>
   ts_primary_state_ids ! 4286 = 4286 \<and> ts_primary_state_ids ! 4289 = 4289 \<and>
   ts_primary_state_ids ! 4290 = 4290 \<and> ts_primary_state_ids ! 4297 = 4290 \<and>
   ts_primary_state_ids ! 4300 = 4286 \<and> ts_primary_state_ids ! 4301 = 4289 \<and>
   ts_primary_state_ids ! 4302 = 4302 \<and> ts_primary_state_ids ! 4304 = 4302 \<and>
   ts_primary_state_ids ! 4305 = 4284 \<and> ts_primary_state_ids ! 4308 = 4308 \<and>
   ts_primary_state_ids ! 4310 = 4308 \<and> ts_primary_state_ids ! 4313 = 4313 \<and>
   ts_primary_state_ids ! 4316 = 4316 \<and> ts_primary_state_ids ! 4317 = 4317 \<and>
   ts_primary_state_ids ! 4318 = 4318 \<and> ts_primary_state_ids ! 4319 = 4319 \<and>
   ts_primary_state_ids ! 4322 = 4322 \<and> ts_primary_state_ids ! 4323 = 4323 \<and>
   ts_primary_state_ids ! 4324 = 4324 \<and> ts_primary_state_ids ! 4327 = 4327 \<and>
   ts_primary_state_ids ! 4328 = 4328 \<and> ts_primary_state_ids ! 4330 = 4330 \<and>
   ts_primary_state_ids ! 4333 = 4333 \<and> ts_primary_state_ids ! 4334 = 4334 \<and>
   ts_primary_state_ids ! 4335 = 4335 \<and> ts_primary_state_ids ! 4336 = 4336 \<and>
   ts_primary_state_ids ! 4339 = 4339 \<and> ts_primary_state_ids ! 4340 = 4340 \<and>
   ts_primary_state_ids ! 4342 = 4342 \<and> ts_primary_state_ids ! 4345 = 4345 \<and>
   ts_primary_state_ids ! 4346 = 4346 \<and> ts_primary_state_ids ! 4347 = 4347 \<and>
   ts_primary_state_ids ! 4348 = 4348"
proof -
  have "holds_from (\<lambda>i x. ts_primary_state_ids ! i = x) 4200 ts_primary_state_ids_28"
    by (rule block_places) (rule primary_runs_mem)
  then show ?thesis unfolding ts_primary_state_ids_28_def by (simp del: One_nat_def)
qed

lemma primary_ids_29:
  "ts_primary_state_ids ! 4351 = 4351 \<and> ts_primary_state_ids ! 4352 = 4352 \<and>
   ts_primary_state_ids ! 4353 = 4353 \<and> ts_primary_state_ids ! 4354 = 4354 \<and>
   ts_primary_state_ids ! 4357 = 4357 \<and> ts_primary_state_ids ! 4358 = 4358 \<and>
   ts_primary_state_ids ! 4359 = 4359 \<and> ts_primary_state_ids ! 4360 = 4360 \<and>
   ts_primary_state_ids ! 4361 = 4361 \<and> ts_primary_state_ids ! 4362 = 4362 \<and>
   ts_primary_state_ids ! 4363 = 4363 \<and> ts_primary_state_ids ! 4364 = 4364 \<and>
   ts_primary_state_ids ! 4367 = 4367 \<and> ts_primary_state_ids ! 4368 = 4368 \<and>
   ts_primary_state_ids ! 4369 = 4369 \<and> ts_primary_state_ids ! 4370 = 4370 \<and>
   ts_primary_state_ids ! 4371 = 4371 \<and> ts_primary_state_ids ! 4374 = 4374 \<and>
   ts_primary_state_ids ! 4375 = 4375 \<and> ts_primary_state_ids ! 4376 = 4376 \<and>
   ts_primary_state_ids ! 4377 = 4377 \<and> ts_primary_state_ids ! 4380 = 4380 \<and>
   ts_primary_state_ids ! 4381 = 4381 \<and> ts_primary_state_ids ! 4383 = 4383 \<and>
   ts_primary_state_ids ! 4386 = 4386 \<and> ts_primary_state_ids ! 4387 = 4387 \<and>
   ts_primary_state_ids ! 4388 = 4388 \<and> ts_primary_state_ids ! 4389 = 4389 \<and>
   ts_primary_state_ids ! 4392 = 4392 \<and> ts_primary_state_ids ! 4393 = 4393 \<and>
   ts_primary_state_ids ! 4394 = 4394 \<and> ts_primary_state_ids ! 4395 = 4395 \<and>
   ts_primary_state_ids ! 4396 = 4396 \<and> ts_primary_state_ids ! 4399 = 4399 \<and>
   ts_primary_state_ids ! 4400 = 4400 \<and> ts_primary_state_ids ! 4401 = 4401 \<and>
   ts_primary_state_ids ! 4402 = 4402 \<and> ts_primary_state_ids ! 4403 = 4403 \<and>
   ts_primary_state_ids ! 4406 = 4406 \<and> ts_primary_state_ids ! 4407 = 4407 \<and>
   ts_primary_state_ids ! 4408 = 4408 \<and> ts_primary_state_ids ! 4409 = 4409 \<and>
   ts_primary_state_ids ! 4412 = 4412 \<and> ts_primary_state_ids ! 4413 = 4413 \<and>
   ts_primary_state_ids ! 4415 = 4415 \<and> ts_primary_state_ids ! 4418 = 4418 \<and>
   ts_primary_state_ids ! 4419 = 4419 \<and> ts_primary_state_ids ! 4420 = 4420 \<and>
   ts_primary_state_ids ! 4421 = 4421 \<and> ts_primary_state_ids ! 4424 = 4424 \<and>
   ts_primary_state_ids ! 4425 = 4425 \<and> ts_primary_state_ids ! 4426 = 4426 \<and>
   ts_primary_state_ids ! 4427 = 4427 \<and> ts_primary_state_ids ! 4428 = 4428 \<and>
   ts_primary_state_ids ! 4429 = 4429 \<and> ts_primary_state_ids ! 4432 = 4432 \<and>
   ts_primary_state_ids ! 4433 = 4433 \<and> ts_primary_state_ids ! 4434 = 4434 \<and>
   ts_primary_state_ids ! 4435 = 4435 \<and> ts_primary_state_ids ! 4436 = 4436 \<and>
   ts_primary_state_ids ! 4437 = 4437 \<and> ts_primary_state_ids ! 4438 = 4438 \<and>
   ts_primary_state_ids ! 4441 = 4441 \<and> ts_primary_state_ids ! 4442 = 4442 \<and>
   ts_primary_state_ids ! 4443 = 4443 \<and> ts_primary_state_ids ! 4449 = 4415 \<and>
   ts_primary_state_ids ! 4450 = 4450 \<and> ts_primary_state_ids ! 4454 = 4454 \<and>
   ts_primary_state_ids ! 4457 = 4418 \<and> ts_primary_state_ids ! 4458 = 4419 \<and>
   ts_primary_state_ids ! 4464 = 4420 \<and> ts_primary_state_ids ! 4466 = 4466 \<and>
   ts_primary_state_ids ! 4467 = 4421 \<and> ts_primary_state_ids ! 4469 = 4469 \<and>
   ts_primary_state_ids ! 4472 = 4472 \<and> ts_primary_state_ids ! 4473 = 4473 \<and>
   ts_primary_state_ids ! 4478 = 4478 \<and> ts_primary_state_ids ! 4485 = 4485 \<and>
   ts_primary_state_ids ! 4486 = 4486 \<and> ts_primary_state_ids ! 4488 = 4424 \<and>
   ts_primary_state_ids ! 4489 = 4489 \<and> ts_primary_state_ids ! 4490 = 4425 \<and>
   ts_primary_state_ids ! 4492 = 4426 \<and> ts_primary_state_ids ! 4493 = 4427 \<and>
   ts_primary_state_ids ! 4495 = 4495 \<and> ts_primary_state_ids ! 4497 = 4428 \<and>
   ts_primary_state_ids ! 4498 = 4429"
proof -
  have "holds_from (\<lambda>i x. ts_primary_state_ids ! i = x) 4350 ts_primary_state_ids_29"
    by (rule block_places) (rule primary_runs_mem)
  then show ?thesis unfolding ts_primary_state_ids_29_def by (simp del: One_nat_def)
qed

lemma primary_ids_30:
  "ts_primary_state_ids ! 4500 = 4500 \<and> ts_primary_state_ids ! 4502 = 4502 \<and>
   ts_primary_state_ids ! 4504 = 4504 \<and> ts_primary_state_ids ! 4505 = 4505 \<and>
   ts_primary_state_ids ! 4506 = 4506 \<and> ts_primary_state_ids ! 4508 = 4508 \<and>
   ts_primary_state_ids ! 4510 = 4510 \<and> ts_primary_state_ids ! 4511 = 4511 \<and>
   ts_primary_state_ids ! 4514 = 4514 \<and> ts_primary_state_ids ! 4515 = 4515 \<and>
   ts_primary_state_ids ! 4516 = 4516 \<and> ts_primary_state_ids ! 4517 = 4517 \<and>
   ts_primary_state_ids ! 4519 = 4519 \<and> ts_primary_state_ids ! 4521 = 4521 \<and>
   ts_primary_state_ids ! 4525 = 4525 \<and> ts_primary_state_ids ! 4526 = 4526 \<and>
   ts_primary_state_ids ! 4527 = 4527 \<and> ts_primary_state_ids ! 4529 = 4529 \<and>
   ts_primary_state_ids ! 4530 = 4530 \<and> ts_primary_state_ids ! 4532 = 4532 \<and>
   ts_primary_state_ids ! 4534 = 4432 \<and> ts_primary_state_ids ! 4535 = 4535 \<and>
   ts_primary_state_ids ! 4537 = 4433 \<and> ts_primary_state_ids ! 4539 = 4539 \<and>
   ts_primary_state_ids ! 4542 = 4434 \<and> ts_primary_state_ids ! 4544 = 4544 \<and>
   ts_primary_state_ids ! 4545 = 4545 \<and> ts_primary_state_ids ! 4551 = 4435 \<and>
   ts_primary_state_ids ! 4553 = 4436 \<and> ts_primary_state_ids ! 4555 = 4555 \<and>
   ts_primary_state_ids ! 4556 = 4532 \<and> ts_primary_state_ids ! 4557 = 4527 \<and>
   ts_primary_state_ids ! 4558 = 4529 \<and> ts_primary_state_ids ! 4560 = 4560 \<and>
   ts_primary_state_ids ! 4561 = 4545 \<and> ts_primary_state_ids ! 4563 = 4563 \<and>
   ts_primary_state_ids ! 4564 = 4437 \<and> ts_primary_state_ids ! 4565 = 4438 \<and>
   ts_primary_state_ids ! 4567 = 4567 \<and> ts_primary_state_ids ! 4569 = 4569 \<and>
   ts_primary_state_ids ! 4570 = 4570 \<and> ts_primary_state_ids ! 4571 = 4571 \<and>
   ts_primary_state_ids ! 4572 = 4572 \<and> ts_primary_state_ids ! 4574 = 4574 \<and>
   ts_primary_state_ids ! 4575 = 4575 \<and> ts_primary_state_ids ! 4577 = 4577 \<and>
   ts_primary_state_ids ! 4579 = 4441 \<and> ts_primary_state_ids ! 4580 = 4580 \<and>
   ts_primary_state_ids ! 4581 = 4442 \<and> ts_primary_state_ids ! 4583 = 4583 \<and>
   ts_primary_state_ids ! 4584 = 4584 \<and> ts_primary_state_ids ! 4586 = 4586 \<and>
   ts_primary_state_ids ! 4587 = 4587 \<and> ts_primary_state_ids ! 4589 = 4589 \<and>
   ts_primary_state_ids ! 4597 = 4597 \<and> ts_primary_state_ids ! 4598 = 4598 \<and>
   ts_primary_state_ids ! 4599 = 4599 \<and> ts_primary_state_ids ! 4601 = 4601 \<and>
   ts_primary_state_ids ! 4605 = 4605 \<and> ts_primary_state_ids ! 4606 = 4443 \<and>
   ts_primary_state_ids ! 4608 = 4608 \<and> ts_primary_state_ids ! 4612 = 4612 \<and>
   ts_primary_state_ids ! 4613 = 4613 \<and> ts_primary_state_ids ! 4615 = 4399 \<and>
   ts_primary_state_ids ! 4616 = 4616 \<and> ts_primary_state_ids ! 4618 = 4618 \<and>
   ts_primary_state_ids ! 4622 = 4622 \<and> ts_primary_state_ids ! 4623 = 4623 \<and>
   ts_primary_state_ids ! 4625 = 4625 \<and> ts_primary_state_ids ! 4626 = 4626 \<and>
   ts_primary_state_ids ! 4634 = 4634 \<and> ts_primary_state_ids ! 4642 = 4642 \<and>
   ts_primary_state_ids ! 4643 = 4643 \<and> ts_primary_state_ids ! 4645 = 4645 \<and>
   ts_primary_state_ids ! 4646 = 4646 \<and> ts_primary_state_ids ! 4647 = 4647 \<and>
   ts_primary_state_ids ! 4648 = 4648 \<and> ts_primary_state_ids ! 4649 = 4649"
proof -
  have "holds_from (\<lambda>i x. ts_primary_state_ids ! i = x) 4500 ts_primary_state_ids_30"
    by (rule block_places) (rule primary_runs_mem)
  then show ?thesis unfolding ts_primary_state_ids_30_def by (simp del: One_nat_def)
qed

lemma primary_ids_31:
  "ts_primary_state_ids ! 4653 = 4653 \<and> ts_primary_state_ids ! 4655 = 4655 \<and>
   ts_primary_state_ids ! 4661 = 4661 \<and> ts_primary_state_ids ! 4663 = 4663 \<and>
   ts_primary_state_ids ! 4665 = 4665 \<and> ts_primary_state_ids ! 4669 = 4569 \<and>
   ts_primary_state_ids ! 4673 = 4673 \<and> ts_primary_state_ids ! 4674 = 4570 \<and>
   ts_primary_state_ids ! 4676 = 4676 \<and> ts_primary_state_ids ! 4677 = 4677 \<and>
   ts_primary_state_ids ! 4681 = 4681 \<and> ts_primary_state_ids ! 4682 = 4571 \<and>
   ts_primary_state_ids ! 4683 = 4683 \<and> ts_primary_state_ids ! 4684 = 4572 \<and>
   ts_primary_state_ids ! 4685 = 4685 \<and> ts_primary_state_ids ! 4686 = 4686 \<and>
   ts_primary_state_ids ! 4689 = 4689 \<and> ts_primary_state_ids ! 4690 = 4690 \<and>
   ts_primary_state_ids ! 4692 = 4692 \<and> ts_primary_state_ids ! 4693 = 4693 \<and>
   ts_primary_state_ids ! 4695 = 4695 \<and> ts_primary_state_ids ! 4696 = 4696 \<and>
   ts_primary_state_ids ! 4698 = 4698 \<and> ts_primary_state_ids ! 4699 = 4699 \<and>
   ts_primary_state_ids ! 4700 = 4700 \<and> ts_primary_state_ids ! 4703 = 4703 \<and>
   ts_primary_state_ids ! 4705 = 4705 \<and> ts_primary_state_ids ! 4707 = 4707 \<and>
   ts_primary_state_ids ! 4712 = 4712 \<and> ts_primary_state_ids ! 4714 = 4714 \<and>
   ts_primary_state_ids ! 4715 = 4715 \<and> ts_primary_state_ids ! 4717 = 4717 \<and>
   ts_primary_state_ids ! 4719 = 4719 \<and> ts_primary_state_ids ! 4723 = 4723 \<and>
   ts_primary_state_ids ! 4727 = 4727 \<and> ts_primary_state_ids ! 4728 = 4400 \<and>
   ts_primary_state_ids ! 4729 = 4729 \<and> ts_primary_state_ids ! 4733 = 4733 \<and>
   ts_primary_state_ids ! 4735 = 4735 \<and> ts_primary_state_ids ! 4736 = 4736 \<and>
   ts_primary_state_ids ! 4737 = 4737 \<and> ts_primary_state_ids ! 4738 = 4738 \<and>
   ts_primary_state_ids ! 4739 = 4739 \<and> ts_primary_state_ids ! 4742 = 4742 \<and>
   ts_primary_state_ids ! 4743 = 4743 \<and> ts_primary_state_ids ! 4745 = 4745 \<and>
   ts_primary_state_ids ! 4746 = 4746 \<and> ts_primary_state_ids ! 4747 = 4747 \<and>
   ts_primary_state_ids ! 4748 = 4748 \<and> ts_primary_state_ids ! 4749 = 4749 \<and>
   ts_primary_state_ids ! 4750 = 4750 \<and> ts_primary_state_ids ! 4752 = 4575 \<and>
   ts_primary_state_ids ! 4753 = 4753 \<and> ts_primary_state_ids ! 4755 = 4755 \<and>
   ts_primary_state_ids ! 4758 = 4758 \<and> ts_primary_state_ids ! 4760 = 4760 \<and>
   ts_primary_state_ids ! 4761 = 4761 \<and> ts_primary_state_ids ! 4762 = 4762 \<and>
   ts_primary_state_ids ! 4763 = 4763 \<and> ts_primary_state_ids ! 4765 = 4765 \<and>
   ts_primary_state_ids ! 4766 = 4766 \<and> ts_primary_state_ids ! 4767 = 4767 \<and>
   ts_primary_state_ids ! 4768 = 4768 \<and> ts_primary_state_ids ! 4769 = 4769 \<and>
   ts_primary_state_ids ! 4772 = 4772 \<and> ts_primary_state_ids ! 4773 = 4773 \<and>
   ts_primary_state_ids ! 4776 = 4776 \<and> ts_primary_state_ids ! 4777 = 4777 \<and>
   ts_primary_state_ids ! 4778 = 4778 \<and> ts_primary_state_ids ! 4780 = 4780 \<and>
   ts_primary_state_ids ! 4782 = 4782 \<and> ts_primary_state_ids ! 4789 = 4789 \<and>
   ts_primary_state_ids ! 4790 = 4790 \<and> ts_primary_state_ids ! 4791 = 4791 \<and>
   ts_primary_state_ids ! 4792 = 4580 \<and> ts_primary_state_ids ! 4793 = 4401 \<and>
   ts_primary_state_ids ! 4794 = 4402 \<and> ts_primary_state_ids ! 4795 = 4403"
proof -
  have "holds_from (\<lambda>i x. ts_primary_state_ids ! i = x) 4650 ts_primary_state_ids_31"
    by (rule block_places) (rule primary_runs_mem)
  then show ?thesis unfolding ts_primary_state_ids_31_def by (simp del: One_nat_def)
qed

lemma primary_ids_32:
  "ts_primary_state_ids ! 4802 = 4583 \<and> ts_primary_state_ids ! 4804 = 4804 \<and>
   ts_primary_state_ids ! 4805 = 4805 \<and> ts_primary_state_ids ! 4806 = 4806 \<and>
   ts_primary_state_ids ! 4808 = 4808 \<and> ts_primary_state_ids ! 4811 = 4584 \<and>
   ts_primary_state_ids ! 4813 = 4813 \<and> ts_primary_state_ids ! 4816 = 4816 \<and>
   ts_primary_state_ids ! 4817 = 4817 \<and> ts_primary_state_ids ! 4818 = 4818 \<and>
   ts_primary_state_ids ! 4819 = 4819 \<and> ts_primary_state_ids ! 4822 = 4587 \<and>
   ts_primary_state_ids ! 4826 = 4826 \<and> ts_primary_state_ids ! 4828 = 4828 \<and>
   ts_primary_state_ids ! 4830 = 4830 \<and> ts_primary_state_ids ! 4831 = 4831 \<and>
   ts_primary_state_ids ! 4833 = 4833 \<and> ts_primary_state_ids ! 4834 = 4834 \<and>
   ts_primary_state_ids ! 4837 = 4837 \<and> ts_primary_state_ids ! 4839 = 4839 \<and>
   ts_primary_state_ids ! 4845 = 4845 \<and> ts_primary_state_ids ! 4846 = 4846 \<and>
   ts_primary_state_ids ! 4848 = 4848 \<and> ts_primary_state_ids ! 4849 = 4849 \<and>
   ts_primary_state_ids ! 4853 = 4598 \<and> ts_primary_state_ids ! 4854 = 4854 \<and>
   ts_primary_state_ids ! 4856 = 4856 \<and> ts_primary_state_ids ! 4857 = 4857 \<and>
   ts_primary_state_ids ! 4858 = 4858 \<and> ts_primary_state_ids ! 4864 = 4864 \<and>
   ts_primary_state_ids ! 4865 = 4865 \<and> ts_primary_state_ids ! 4866 = 4866 \<and>
   ts_primary_state_ids ! 4867 = 4867 \<and> ts_primary_state_ids ! 4871 = 4871 \<and>
   ts_primary_state_ids ! 4872 = 4872 \<and> ts_primary_state_ids ! 4874 = 4874 \<and>
   ts_primary_state_ids ! 4877 = 4877 \<and> ts_primary_state_ids ! 4878 = 4878 \<and>
   ts_primary_state_ids ! 4879 = 4879 \<and> ts_primary_state_ids ! 4880 = 4880 \<and>
   ts_primary_state_ids ! 4882 = 4882 \<and> ts_primary_state_ids ! 4887 = 4887 \<and>
   ts_primary_state_ids ! 4888 = 4888 \<and> ts_primary_state_ids ! 4891 = 4891 \<and>
   ts_primary_state_ids ! 4894 = 4894 \<and> ts_primary_state_ids ! 4895 = 4895 \<and>
   ts_primary_state_ids ! 4896 = 4896 \<and> ts_primary_state_ids ! 4897 = 4897 \<and>
   ts_primary_state_ids ! 4898 = 4898 \<and> ts_primary_state_ids ! 4902 = 4902 \<and>
   ts_primary_state_ids ! 4904 = 4904 \<and> ts_primary_state_ids ! 4905 = 4905 \<and>
   ts_primary_state_ids ! 4908 = 4908 \<and> ts_primary_state_ids ! 4912 = 4912 \<and>
   ts_primary_state_ids ! 4913 = 4913 \<and> ts_primary_state_ids ! 4914 = 4914 \<and>
   ts_primary_state_ids ! 4915 = 4915 \<and> ts_primary_state_ids ! 4916 = 4916 \<and>
   ts_primary_state_ids ! 4918 = 4918 \<and> ts_primary_state_ids ! 4919 = 4919 \<and>
   ts_primary_state_ids ! 4920 = 4920 \<and> ts_primary_state_ids ! 4922 = 4922 \<and>
   ts_primary_state_ids ! 4923 = 4618 \<and> ts_primary_state_ids ! 4924 = 4924 \<and>
   ts_primary_state_ids ! 4925 = 4925 \<and> ts_primary_state_ids ! 4926 = 4926 \<and>
   ts_primary_state_ids ! 4931 = 4931 \<and> ts_primary_state_ids ! 4933 = 4933 \<and>
   ts_primary_state_ids ! 4936 = 4936 \<and> ts_primary_state_ids ! 4937 = 4937 \<and>
   ts_primary_state_ids ! 4939 = 4939 \<and> ts_primary_state_ids ! 4941 = 4941 \<and>
   ts_primary_state_ids ! 4942 = 4942 \<and> ts_primary_state_ids ! 4944 = 4944 \<and>
   ts_primary_state_ids ! 4946 = 4946"
proof -
  have "holds_from (\<lambda>i x. ts_primary_state_ids ! i = x) 4800 ts_primary_state_ids_32"
    by (rule block_places) (rule primary_runs_mem)
  then show ?thesis unfolding ts_primary_state_ids_32_def by (simp del: One_nat_def)
qed

lemma primary_ids_33:
  "ts_primary_state_ids ! 4951 = 4951 \<and> ts_primary_state_ids ! 4953 = 4953 \<and>
   ts_primary_state_ids ! 4954 = 4954 \<and> ts_primary_state_ids ! 4956 = 4956 \<and>
   ts_primary_state_ids ! 4961 = 4454 \<and> ts_primary_state_ids ! 4962 = 4962 \<and>
   ts_primary_state_ids ! 4963 = 4963 \<and> ts_primary_state_ids ! 4965 = 4622 \<and>
   ts_primary_state_ids ! 4966 = 4966 \<and> ts_primary_state_ids ! 4967 = 4466 \<and>
   ts_primary_state_ids ! 4969 = 4521 \<and> ts_primary_state_ids ! 4971 = 4577 \<and>
   ts_primary_state_ids ! 4972 = 4623 \<and> ts_primary_state_ids ! 4977 = 4683 \<and>
   ts_primary_state_ids ! 4979 = 4625 \<and> ts_primary_state_ids ! 4981 = 4686 \<and>
   ts_primary_state_ids ! 4982 = 4982 \<and> ts_primary_state_ids ! 4984 = 4984 \<and>
   ts_primary_state_ids ! 4987 = 4987 \<and> ts_primary_state_ids ! 4988 = 4504 \<and>
   ts_primary_state_ids ! 4995 = 4608 \<and> ts_primary_state_ids ! 4997 = 4612 \<and>
   ts_primary_state_ids ! 4998 = 4998 \<and> ts_primary_state_ids ! 4999 = 4999 \<and>
   ts_primary_state_ids ! 5000 = 5000 \<and> ts_primary_state_ids ! 5001 = 5001 \<and>
   ts_primary_state_ids ! 5005 = 5005 \<and> ts_primary_state_ids ! 5006 = 5006 \<and>
   ts_primary_state_ids ! 5007 = 5007 \<and> ts_primary_state_ids ! 5008 = 5008 \<and>
   ts_primary_state_ids ! 5010 = 4613 \<and> ts_primary_state_ids ! 5012 = 5012 \<and>
   ts_primary_state_ids ! 5013 = 5013 \<and> ts_primary_state_ids ! 5015 = 5015 \<and>
   ts_primary_state_ids ! 5017 = 4616 \<and> ts_primary_state_ids ! 5019 = 5019 \<and>
   ts_primary_state_ids ! 5020 = 5020 \<and> ts_primary_state_ids ! 5021 = 5021 \<and>
   ts_primary_state_ids ! 5022 = 4634 \<and> ts_primary_state_ids ! 5023 = 5023 \<and>
   ts_primary_state_ids ! 5027 = 4673 \<and> ts_primary_state_ids ! 5028 = 4676 \<and>
   ts_primary_state_ids ! 5029 = 4677 \<and> ts_primary_state_ids ! 5033 = 4681 \<and>
   ts_primary_state_ids ! 5034 = 5034 \<and> ts_primary_state_ids ! 5035 = 4982 \<and>
   ts_primary_state_ids ! 5036 = 5036 \<and> ts_primary_state_ids ! 5039 = 5039 \<and>
   ts_primary_state_ids ! 5040 = 5040 \<and> ts_primary_state_ids ! 5042 = 5042 \<and>
   ts_primary_state_ids ! 5044 = 5044 \<and> ts_primary_state_ids ! 5047 = 5047 \<and>
   ts_primary_state_ids ! 5049 = 5049 \<and> ts_primary_state_ids ! 5054 = 5054 \<and>
   ts_primary_state_ids ! 5055 = 5055 \<and> ts_primary_state_ids ! 5057 = 5057 \<and>
   ts_primary_state_ids ! 5059 = 4642 \<and> ts_primary_state_ids ! 5064 = 4406 \<and>
   ts_primary_state_ids ! 5065 = 4643 \<and> ts_primary_state_ids ! 5069 = 5069 \<and>
   ts_primary_state_ids ! 5070 = 4645 \<and> ts_primary_state_ids ! 5071 = 5071 \<and>
   ts_primary_state_ids ! 5073 = 4646 \<and> ts_primary_state_ids ! 5074 = 5074 \<and>
   ts_primary_state_ids ! 5076 = 4647 \<and> ts_primary_state_ids ! 5079 = 4648 \<and>
   ts_primary_state_ids ! 5086 = 4653 \<and> ts_primary_state_ids ! 5087 = 5087 \<and>
   ts_primary_state_ids ! 5090 = 4655 \<and> ts_primary_state_ids ! 5093 = 4407 \<and>
   ts_primary_state_ids ! 5096 = 4408 \<and> ts_primary_state_ids ! 5098 = 5098 \<and>
   ts_primary_state_ids ! 5099 = 5099"
proof -
  have "holds_from (\<lambda>i x. ts_primary_state_ids ! i = x) 4950 ts_primary_state_ids_33"
    by (rule block_places) (rule primary_runs_mem)
  then show ?thesis unfolding ts_primary_state_ids_33_def by (simp del: One_nat_def)
qed

lemma primary_ids_34:
  "ts_primary_state_ids ! 5100 = 5100 \<and> ts_primary_state_ids ! 5101 = 5101 \<and>
   ts_primary_state_ids ! 5105 = 5105 \<and> ts_primary_state_ids ! 5106 = 5106 \<and>
   ts_primary_state_ids ! 5107 = 5107 \<and> ts_primary_state_ids ! 5108 = 5108 \<and>
   ts_primary_state_ids ! 5112 = 5112 \<and> ts_primary_state_ids ! 5113 = 5113 \<and>
   ts_primary_state_ids ! 5115 = 5115 \<and> ts_primary_state_ids ! 5117 = 4661 \<and>
   ts_primary_state_ids ! 5119 = 5119 \<and> ts_primary_state_ids ! 5120 = 5120 \<and>
   ts_primary_state_ids ! 5121 = 5121 \<and> ts_primary_state_ids ! 5122 = 5122 \<and>
   ts_primary_state_ids ! 5124 = 4663 \<and> ts_primary_state_ids ! 5126 = 5126 \<and>
   ts_primary_state_ids ! 5129 = 5129 \<and> ts_primary_state_ids ! 5130 = 5130 \<and>
   ts_primary_state_ids ! 5131 = 4665 \<and> ts_primary_state_ids ! 5132 = 5132 \<and>
   ts_primary_state_ids ! 5133 = 5133 \<and> ts_primary_state_ids ! 5135 = 5135 \<and>
   ts_primary_state_ids ! 5139 = 5139 \<and> ts_primary_state_ids ! 5140 = 5140 \<and>
   ts_primary_state_ids ! 5141 = 5141 \<and> ts_primary_state_ids ! 5143 = 5143 \<and>
   ts_primary_state_ids ! 5144 = 5144 \<and> ts_primary_state_ids ! 5146 = 5146 \<and>
   ts_primary_state_ids ! 5147 = 5147 \<and> ts_primary_state_ids ! 5151 = 5151 \<and>
   ts_primary_state_ids ! 5152 = 5152 \<and> ts_primary_state_ids ! 5154 = 5154 \<and>
   ts_primary_state_ids ! 5156 = 5156 \<and> ts_primary_state_ids ! 5157 = 5157 \<and>
   ts_primary_state_ids ! 5159 = 5159 \<and> ts_primary_state_ids ! 5160 = 5160 \<and>
   ts_primary_state_ids ! 5162 = 4450 \<and> ts_primary_state_ids ! 5164 = 5164 \<and>
   ts_primary_state_ids ! 5166 = 5166 \<and> ts_primary_state_ids ! 5168 = 5168 \<and>
   ts_primary_state_ids ! 5173 = 5173 \<and> ts_primary_state_ids ! 5174 = 5168 \<and>
   ts_primary_state_ids ! 5176 = 5176 \<and> ts_primary_state_ids ! 5180 = 5180 \<and>
   ts_primary_state_ids ! 5182 = 5182 \<and> ts_primary_state_ids ! 5184 = 5184 \<and>
   ts_primary_state_ids ! 5186 = 5186 \<and> ts_primary_state_ids ! 5189 = 4472 \<and>
   ts_primary_state_ids ! 5191 = 5191 \<and> ts_primary_state_ids ! 5193 = 4473 \<and>
   ts_primary_state_ids ! 5194 = 5194 \<and> ts_primary_state_ids ! 5198 = 4478 \<and>
   ts_primary_state_ids ! 5204 = 5204 \<and> ts_primary_state_ids ! 5205 = 4485 \<and>
   ts_primary_state_ids ! 5206 = 4486 \<and> ts_primary_state_ids ! 5207 = 5207 \<and>
   ts_primary_state_ids ! 5209 = 4489 \<and> ts_primary_state_ids ! 5210 = 5210 \<and>
   ts_primary_state_ids ! 5211 = 4495 \<and> ts_primary_state_ids ! 5216 = 4500 \<and>
   ts_primary_state_ids ! 5218 = 4506 \<and> ts_primary_state_ids ! 5220 = 4508 \<and>
   ts_primary_state_ids ! 5223 = 4511 \<and> ts_primary_state_ids ! 5224 = 5224 \<and>
   ts_primary_state_ids ! 5225 = 5225 \<and> ts_primary_state_ids ! 5226 = 5226 \<and>
   ts_primary_state_ids ! 5227 = 5227 \<and> ts_primary_state_ids ! 5228 = 5228 \<and>
   ts_primary_state_ids ! 5232 = 5232 \<and> ts_primary_state_ids ! 5234 = 5234 \<and>
   ts_primary_state_ids ! 5236 = 4514 \<and> ts_primary_state_ids ! 5237 = 5237 \<and>
   ts_primary_state_ids ! 5238 = 5238 \<and> ts_primary_state_ids ! 5240 = 4515 \<and>
   ts_primary_state_ids ! 5241 = 5241 \<and> ts_primary_state_ids ! 5242 = 5242 \<and>
   ts_primary_state_ids ! 5244 = 5244 \<and> ts_primary_state_ids ! 5248 = 4516 \<and>
   ts_primary_state_ids ! 5249 = 5249"
proof -
  have "holds_from (\<lambda>i x. ts_primary_state_ids ! i = x) 5100 ts_primary_state_ids_34"
    by (rule block_places) (rule primary_runs_mem)
  then show ?thesis unfolding ts_primary_state_ids_34_def by (simp del: One_nat_def)
qed

lemma primary_ids_35:
  "ts_primary_state_ids ! 5250 = 4517 \<and> ts_primary_state_ids ! 5251 = 5251 \<and>
   ts_primary_state_ids ! 5252 = 5252 \<and> ts_primary_state_ids ! 5253 = 4692 \<and>
   ts_primary_state_ids ! 5254 = 5254 \<and> ts_primary_state_ids ! 5256 = 5256 \<and>
   ts_primary_state_ids ! 5257 = 5257 \<and> ts_primary_state_ids ! 5258 = 4693 \<and>
   ts_primary_state_ids ! 5259 = 5259 \<and> ts_primary_state_ids ! 5262 = 4525 \<and>
   ts_primary_state_ids ! 5264 = 5264 \<and> ts_primary_state_ids ! 5265 = 5265 \<and>
   ts_primary_state_ids ! 5266 = 4695 \<and> ts_primary_state_ids ! 5267 = 5267 \<and>
   ts_primary_state_ids ! 5269 = 4696 \<and> ts_primary_state_ids ! 5270 = 5270 \<and>
   ts_primary_state_ids ! 5271 = 4526 \<and> ts_primary_state_ids ! 5272 = 5272 \<and>
   ts_primary_state_ids ! 5273 = 4699 \<and> ts_primary_state_ids ! 5274 = 5274 \<and>
   ts_primary_state_ids ! 5275 = 5275 \<and> ts_primary_state_ids ! 5276 = 4700 \<and>
   ts_primary_state_ids ! 5279 = 5279 \<and> ts_primary_state_ids ! 5282 = 5282 \<and>
   ts_primary_state_ids ! 5283 = 4530 \<and> ts_primary_state_ids ! 5287 = 4535 \<and>
   ts_primary_state_ids ! 5288 = 4703 \<and> ts_primary_state_ids ! 5292 = 5292 \<and>
   ts_primary_state_ids ! 5293 = 4707 \<and> ts_primary_state_ids ! 5294 = 5294 \<and>
   ts_primary_state_ids ! 5298 = 5298 \<and> ts_primary_state_ids ! 5299 = 4539 \<and>
   ts_primary_state_ids ! 5300 = 5300 \<and> ts_primary_state_ids ! 5302 = 5302 \<and>
   ts_primary_state_ids ! 5304 = 5304 \<and> ts_primary_state_ids ! 5308 = 5308 \<and>
   ts_primary_state_ids ! 5311 = 5311 \<and> ts_primary_state_ids ! 5316 = 4714 \<and>
   ts_primary_state_ids ! 5318 = 4555 \<and> ts_primary_state_ids ! 5320 = 5320 \<and>
   ts_primary_state_ids ! 5321 = 4715 \<and> ts_primary_state_ids ! 5323 = 5323 \<and>
   ts_primary_state_ids ! 5325 = 5325 \<and> ts_primary_state_ids ! 5326 = 4719 \<and>
   ts_primary_state_ids ! 5329 = 4560 \<and> ts_primary_state_ids ! 5332 = 4563 \<and>
   ts_primary_state_ids ! 5334 = 4567 \<and> ts_primary_state_ids ! 5337 = 4574 \<and>
   ts_primary_state_ids ! 5339 = 4586 \<and> ts_primary_state_ids ! 5340 = 4589 \<and>
   ts_primary_state_ids ! 5343 = 5343 \<and> ts_primary_state_ids ! 5344 = 5344 \<and>
   ts_primary_state_ids ! 5346 = 5346 \<and> ts_primary_state_ids ! 5347 = 5347 \<and>
   ts_primary_state_ids ! 5351 = 5351 \<and> ts_primary_state_ids ! 5352 = 5352 \<and>
   ts_primary_state_ids ! 5353 = 5353 \<and> ts_primary_state_ids ! 5356 = 5356 \<and>
   ts_primary_state_ids ! 5359 = 5359 \<and> ts_primary_state_ids ! 5360 = 5360 \<and>
   ts_primary_state_ids ! 5362 = 5362 \<and> ts_primary_state_ids ! 5363 = 4597 \<and>
   ts_primary_state_ids ! 5364 = 5364 \<and> ts_primary_state_ids ! 5368 = 5368 \<and>
   ts_primary_state_ids ! 5369 = 4599 \<and> ts_primary_state_ids ! 5370 = 5370 \<and>
   ts_primary_state_ids ! 5371 = 4601 \<and> ts_primary_state_ids ! 5372 = 5372 \<and>
   ts_primary_state_ids ! 5374 = 5374 \<and> ts_primary_state_ids ! 5376 = 4605 \<and>
   ts_primary_state_ids ! 5378 = 5378 \<and> ts_primary_state_ids ! 5380 = 5380 \<and>
   ts_primary_state_ids ! 5381 = 5381 \<and> ts_primary_state_ids ! 5382 = 5382 \<and>
   ts_primary_state_ids ! 5385 = 5385 \<and> ts_primary_state_ids ! 5386 = 5386 \<and>
   ts_primary_state_ids ! 5389 = 5389 \<and> ts_primary_state_ids ! 5391 = 5391 \<and>
   ts_primary_state_ids ! 5393 = 5393 \<and> ts_primary_state_ids ! 5398 = 5398 \<and>
   ts_primary_state_ids ! 5399 = 4626"
proof -
  have "holds_from (\<lambda>i x. ts_primary_state_ids ! i = x) 5250 ts_primary_state_ids_35"
    by (rule block_places) (rule primary_runs_mem)
  then show ?thesis unfolding ts_primary_state_ids_35_def by (simp del: One_nat_def)
qed

lemma primary_ids_36:
  "ts_primary_state_ids ! 5400 = 5400 \<and> ts_primary_state_ids ! 5402 = 5402 \<and>
   ts_primary_state_ids ! 5404 = 5404 \<and> ts_primary_state_ids ! 5406 = 5406 \<and>
   ts_primary_state_ids ! 5407 = 4733 \<and> ts_primary_state_ids ! 5408 = 5408 \<and>
   ts_primary_state_ids ! 5410 = 5410 \<and> ts_primary_state_ids ! 5413 = 4649 \<and>
   ts_primary_state_ids ! 5415 = 5415 \<and> ts_primary_state_ids ! 5416 = 5416 \<and>
   ts_primary_state_ids ! 5418 = 5418 \<and> ts_primary_state_ids ! 5419 = 5419 \<and>
   ts_primary_state_ids ! 5420 = 4735 \<and> ts_primary_state_ids ! 5422 = 5422 \<and>
   ts_primary_state_ids ! 5423 = 4736 \<and> ts_primary_state_ids ! 5424 = 5424 \<and>
   ts_primary_state_ids ! 5425 = 5425 \<and> ts_primary_state_ids ! 5429 = 4737 \<and>
   ts_primary_state_ids ! 5430 = 5430 \<and> ts_primary_state_ids ! 5432 = 5432 \<and>
   ts_primary_state_ids ! 5433 = 4738 \<and> ts_primary_state_ids ! 5434 = 5434 \<and>
   ts_primary_state_ids ! 5436 = 5436 \<and> ts_primary_state_ids ! 5437 = 4739 \<and>
   ts_primary_state_ids ! 5438 = 5438 \<and> ts_primary_state_ids ! 5440 = 5440 \<and>
   ts_primary_state_ids ! 5441 = 4685 \<and> ts_primary_state_ids ! 5442 = 5442 \<and>
   ts_primary_state_ids ! 5445 = 4689 \<and> ts_primary_state_ids ! 5447 = 5447 \<and>
   ts_primary_state_ids ! 5448 = 5448 \<and> ts_primary_state_ids ! 5449 = 4742 \<and>
   ts_primary_state_ids ! 5450 = 5450 \<and> ts_primary_state_ids ! 5452 = 4743 \<and>
   ts_primary_state_ids ! 5453 = 4690 \<and> ts_primary_state_ids ! 5454 = 5454 \<and>
   ts_primary_state_ids ! 5455 = 4745 \<and> ts_primary_state_ids ! 5456 = 5456 \<and>
   ts_primary_state_ids ! 5457 = 5457 \<and> ts_primary_state_ids ! 5458 = 4746 \<and>
   ts_primary_state_ids ! 5459 = 5459 \<and> ts_primary_state_ids ! 5462 = 4748 \<and>
   ts_primary_state_ids ! 5464 = 5464 \<and> ts_primary_state_ids ! 5466 = 5466 \<and>
   ts_primary_state_ids ! 5467 = 4750 \<and> ts_primary_state_ids ! 5471 = 4698 \<and>
   ts_primary_state_ids ! 5472 = 4755 \<and> ts_primary_state_ids ! 5474 = 4705 \<and>
   ts_primary_state_ids ! 5476 = 5476 \<and> ts_primary_state_ids ! 5477 = 5477 \<and>
   ts_primary_state_ids ! 5478 = 5478 \<and> ts_primary_state_ids ! 5481 = 5481 \<and>
   ts_primary_state_ids ! 5485 = 5485 \<and> ts_primary_state_ids ! 5486 = 5486 \<and>
   ts_primary_state_ids ! 5488 = 5488 \<and> ts_primary_state_ids ! 5489 = 4758 \<and>
   ts_primary_state_ids ! 5490 = 5490 \<and> ts_primary_state_ids ! 5492 = 4760 \<and>
   ts_primary_state_ids ! 5494 = 5494 \<and> ts_primary_state_ids ! 5495 = 4712 \<and>
   ts_primary_state_ids ! 5497 = 5497 \<and> ts_primary_state_ids ! 5498 = 4762 \<and>
   ts_primary_state_ids ! 5499 = 5499 \<and> ts_primary_state_ids ! 5501 = 5501 \<and>
   ts_primary_state_ids ! 5505 = 5505 \<and> ts_primary_state_ids ! 5506 = 4765 \<and>
   ts_primary_state_ids ! 5507 = 5507 \<and> ts_primary_state_ids ! 5508 = 5508 \<and>
   ts_primary_state_ids ! 5509 = 5509 \<and> ts_primary_state_ids ! 5511 = 4767 \<and>
   ts_primary_state_ids ! 5512 = 5512 \<and> ts_primary_state_ids ! 5513 = 5513 \<and>
   ts_primary_state_ids ! 5514 = 4469 \<and> ts_primary_state_ids ! 5515 = 4769 \<and>
   ts_primary_state_ids ! 5516 = 5516 \<and> ts_primary_state_ids ! 5518 = 5518 \<and>
   ts_primary_state_ids ! 5519 = 4773 \<and> ts_primary_state_ids ! 5520 = 5520 \<and>
   ts_primary_state_ids ! 5524 = 5524 \<and> ts_primary_state_ids ! 5525 = 4717 \<and>
   ts_primary_state_ids ! 5526 = 5526 \<and> ts_primary_state_ids ! 5528 = 5528 \<and>
   ts_primary_state_ids ! 5529 = 4776 \<and> ts_primary_state_ids ! 5530 = 5530 \<and>
   ts_primary_state_ids ! 5532 = 5532 \<and> ts_primary_state_ids ! 5533 = 4723 \<and>
   ts_primary_state_ids ! 5534 = 5534 \<and> ts_primary_state_ids ! 5535 = 4782 \<and>
   ts_primary_state_ids ! 5536 = 5536 \<and> ts_primary_state_ids ! 5541 = 5541 \<and>
   ts_primary_state_ids ! 5542 = 5542 \<and> ts_primary_state_ids ! 5544 = 4727 \<and>
   ts_primary_state_ids ! 5545 = 5545 \<and> ts_primary_state_ids ! 5546 = 5546 \<and>
   ts_primary_state_ids ! 5548 = 4729 \<and> ts_primary_state_ids ! 5549 = 5549"
proof -
  have "holds_from (\<lambda>i x. ts_primary_state_ids ! i = x) 5400 ts_primary_state_ids_36"
    by (rule block_places) (rule primary_runs_mem)
  then show ?thesis unfolding ts_primary_state_ids_36_def by (simp del: One_nat_def)
qed

lemma primary_ids_37:
  "ts_primary_state_ids ! 5551 = 5551 \<and> ts_primary_state_ids ! 5553 = 5553 \<and>
   ts_primary_state_ids ! 5558 = 5558 \<and> ts_primary_state_ids ! 5560 = 5560 \<and>
   ts_primary_state_ids ! 5561 = 4747 \<and> ts_primary_state_ids ! 5562 = 5562 \<and>
   ts_primary_state_ids ! 5564 = 5564 \<and> ts_primary_state_ids ! 5565 = 5565 \<and>
   ts_primary_state_ids ! 5567 = 5567 \<and> ts_primary_state_ids ! 5568 = 4749 \<and>
   ts_primary_state_ids ! 5569 = 5569 \<and> ts_primary_state_ids ! 5572 = 4753 \<and>
   ts_primary_state_ids ! 5576 = 4761 \<and> ts_primary_state_ids ! 5577 = 4763 \<and>
   ts_primary_state_ids ! 5578 = 4766 \<and> ts_primary_state_ids ! 5579 = 4768 \<and>
   ts_primary_state_ids ! 5582 = 5582 \<and> ts_primary_state_ids ! 5583 = 4772 \<and>
   ts_primary_state_ids ! 5584 = 4777 \<and> ts_primary_state_ids ! 5585 = 4778 \<and>
   ts_primary_state_ids ! 5586 = 4780 \<and> ts_primary_state_ids ! 5589 = 4789 \<and>
   ts_primary_state_ids ! 5590 = 4790 \<and> ts_primary_state_ids ! 5591 = 4791 \<and>
   ts_primary_state_ids ! 5592 = 4409 \<and> ts_primary_state_ids ! 5597 = 4412 \<and>
   ts_primary_state_ids ! 5598 = 4413 \<and> ts_primary_state_ids ! 5600 = 4544 \<and>
   ts_primary_state_ids ! 5602 = 5602 \<and> ts_primary_state_ids ! 5605 = 4804 \<and>
   ts_primary_state_ids ! 5606 = 5606 \<and> ts_primary_state_ids ! 5607 = 4806 \<and>
   ts_primary_state_ids ! 5610 = 4808 \<and> ts_primary_state_ids ! 5617 = 4830 \<and>
   ts_primary_state_ids ! 5621 = 4845 \<and> ts_primary_state_ids ! 5623 = 5623 \<and>
   ts_primary_state_ids ! 5626 = 5626 \<and> ts_primary_state_ids ! 5628 = 4865 \<and>
   ts_primary_state_ids ! 5629 = 4866 \<and> ts_primary_state_ids ! 5630 = 4867 \<and>
   ts_primary_state_ids ! 5633 = 4871 \<and> ts_primary_state_ids ! 5634 = 4872 \<and>
   ts_primary_state_ids ! 5636 = 5636 \<and> ts_primary_state_ids ! 5637 = 4874 \<and>
   ts_primary_state_ids ! 5638 = 5638 \<and> ts_primary_state_ids ! 5642 = 4877 \<and>
   ts_primary_state_ids ! 5643 = 4878 \<and> ts_primary_state_ids ! 5645 = 5645 \<and>
   ts_primary_state_ids ! 5647 = 4880 \<and> ts_primary_state_ids ! 5648 = 5648 \<and>
   ts_primary_state_ids ! 5649 = 4882 \<and> ts_primary_state_ids ! 5654 = 4887 \<and>
   ts_primary_state_ids ! 5655 = 4888 \<and> ts_primary_state_ids ! 5658 = 4891 \<and>
   ts_primary_state_ids ! 5660 = 5660 \<and> ts_primary_state_ids ! 5663 = 4894 \<and>
   ts_primary_state_ids ! 5664 = 4895 \<and> ts_primary_state_ids ! 5665 = 4896 \<and>
   ts_primary_state_ids ! 5666 = 4898 \<and> ts_primary_state_ids ! 5669 = 4902 \<and>
   ts_primary_state_ids ! 5670 = 4904 \<and> ts_primary_state_ids ! 5671 = 4905 \<and>
   ts_primary_state_ids ! 5672 = 4908 \<and> ts_primary_state_ids ! 5673 = 5673 \<and>
   ts_primary_state_ids ! 5675 = 5675 \<and> ts_primary_state_ids ! 5676 = 5676 \<and>
   ts_primary_state_ids ! 5678 = 4912 \<and> ts_primary_state_ids ! 5679 = 4913 \<and>
   ts_primary_state_ids ! 5681 = 4914 \<and> ts_primary_state_ids ! 5682 = 4915 \<and>
   ts_primary_state_ids ! 5683 = 4916 \<and> ts_primary_state_ids ! 5686 = 4920 \<and>
   ts_primary_state_ids ! 5687 = 5687 \<and> ts_primary_state_ids ! 5688 = 4922 \<and>
   ts_primary_state_ids ! 5689 = 4924 \<and> ts_primary_state_ids ! 5690 = 4926 \<and>
   ts_primary_state_ids ! 5693 = 4931 \<and> ts_primary_state_ids ! 5694 = 5694 \<and>
   ts_primary_state_ids ! 5698 = 4933"
proof -
  have "holds_from (\<lambda>i x. ts_primary_state_ids ! i = x) 5550 ts_primary_state_ids_37"
    by (rule block_places) (rule primary_runs_mem)
  then show ?thesis unfolding ts_primary_state_ids_37_def by (simp del: One_nat_def)
qed

lemma primary_ids_38:
  "ts_primary_state_ids ! 5703 = 4942 \<and> ts_primary_state_ids ! 5704 = 4944 \<and>
   ts_primary_state_ids ! 5705 = 5705 \<and> ts_primary_state_ids ! 5709 = 4946 \<and>
   ts_primary_state_ids ! 5710 = 5710 \<and> ts_primary_state_ids ! 5711 = 5711 \<and>
   ts_primary_state_ids ! 5713 = 5713 \<and> ts_primary_state_ids ! 5715 = 5715 \<and>
   ts_primary_state_ids ! 5719 = 5719 \<and> ts_primary_state_ids ! 5720 = 5720 \<and>
   ts_primary_state_ids ! 5723 = 5723 \<and> ts_primary_state_ids ! 5728 = 5728 \<and>
   ts_primary_state_ids ! 5729 = 4962 \<and> ts_primary_state_ids ! 5730 = 4963 \<and>
   ts_primary_state_ids ! 5732 = 4966 \<and> ts_primary_state_ids ! 5738 = 5738 \<and>
   ts_primary_state_ids ! 5740 = 4984 \<and> ts_primary_state_ids ! 5744 = 5744 \<and>
   ts_primary_state_ids ! 5746 = 5746 \<and> ts_primary_state_ids ! 5747 = 4998 \<and>
   ts_primary_state_ids ! 5748 = 4999 \<and> ts_primary_state_ids ! 5750 = 5000 \<and>
   ts_primary_state_ids ! 5751 = 5001 \<and> ts_primary_state_ids ! 5754 = 5005 \<and>
   ts_primary_state_ids ! 5755 = 5006 \<and> ts_primary_state_ids ! 5756 = 5007 \<and>
   ts_primary_state_ids ! 5757 = 5008 \<and> ts_primary_state_ids ! 5760 = 5012 \<and>
   ts_primary_state_ids ! 5761 = 5013 \<and> ts_primary_state_ids ! 5763 = 5015 \<and>
   ts_primary_state_ids ! 5765 = 5765 \<and> ts_primary_state_ids ! 5768 = 5768 \<and>
   ts_primary_state_ids ! 5769 = 5769 \<and> ts_primary_state_ids ! 5770 = 5019 \<and>
   ts_primary_state_ids ! 5771 = 5020 \<and> ts_primary_state_ids ! 5772 = 5021 \<and>
   ts_primary_state_ids ! 5773 = 5023 \<and> ts_primary_state_ids ! 5776 = 4987 \<and>
   ts_primary_state_ids ! 5777 = 5777 \<and> ts_primary_state_ids ! 5781 = 5034 \<and>
   ts_primary_state_ids ! 5782 = 5036 \<and> ts_primary_state_ids ! 5784 = 5039 \<and>
   ts_primary_state_ids ! 5785 = 5040 \<and> ts_primary_state_ids ! 5786 = 5042 \<and>
   ts_primary_state_ids ! 5787 = 5044 \<and> ts_primary_state_ids ! 5790 = 5790 \<and>
   ts_primary_state_ids ! 5791 = 5047 \<and> ts_primary_state_ids ! 5793 = 5049 \<and>
   ts_primary_state_ids ! 5798 = 5054 \<and> ts_primary_state_ids ! 5799 = 5799 \<and>
   ts_primary_state_ids ! 5801 = 5801 \<and> ts_primary_state_ids ! 5802 = 5802 \<and>
   ts_primary_state_ids ! 5803 = 5803 \<and> ts_primary_state_ids ! 5805 = 5055 \<and>
   ts_primary_state_ids ! 5807 = 5057 \<and> ts_primary_state_ids ! 5815 = 5069 \<and>
   ts_primary_state_ids ! 5816 = 5071 \<and> ts_primary_state_ids ! 5818 = 5074 \<and>
   ts_primary_state_ids ! 5825 = 5087 \<and> ts_primary_state_ids ! 5829 = 5098 \<and>
   ts_primary_state_ids ! 5830 = 5099 \<and> ts_primary_state_ids ! 5831 = 5100 \<and>
   ts_primary_state_ids ! 5832 = 5101 \<and> ts_primary_state_ids ! 5835 = 5105 \<and>
   ts_primary_state_ids ! 5836 = 5106 \<and> ts_primary_state_ids ! 5837 = 5107 \<and>
   ts_primary_state_ids ! 5838 = 5108 \<and> ts_primary_state_ids ! 5840 = 5840 \<and>
   ts_primary_state_ids ! 5842 = 5112 \<and> ts_primary_state_ids ! 5843 = 5113 \<and>
   ts_primary_state_ids ! 5845 = 5115 \<and> ts_primary_state_ids ! 5848 = 5119 \<and>
   ts_primary_state_ids ! 5849 = 5120"
proof -
  have "holds_from (\<lambda>i x. ts_primary_state_ids ! i = x) 5700 ts_primary_state_ids_38"
    by (rule block_places) (rule primary_runs_mem)
  then show ?thesis unfolding ts_primary_state_ids_38_def by (simp del: One_nat_def)
qed

lemma primary_ids_39:
  "ts_primary_state_ids ! 5850 = 5121 \<and> ts_primary_state_ids ! 5851 = 5122 \<and>
   ts_primary_state_ids ! 5854 = 5126 \<and> ts_primary_state_ids ! 5856 = 5129 \<and>
   ts_primary_state_ids ! 5857 = 5130 \<and> ts_primary_state_ids ! 5858 = 5132 \<and>
   ts_primary_state_ids ! 5859 = 5133 \<and> ts_primary_state_ids ! 5860 = 5135 \<and>
   ts_primary_state_ids ! 5863 = 5139 \<and> ts_primary_state_ids ! 5865 = 5140 \<and>
   ts_primary_state_ids ! 5866 = 5141 \<and> ts_primary_state_ids ! 5867 = 5143 \<and>
   ts_primary_state_ids ! 5868 = 5144 \<and> ts_primary_state_ids ! 5869 = 5146 \<and>
   ts_primary_state_ids ! 5870 = 5147 \<and> ts_primary_state_ids ! 5873 = 5151 \<and>
   ts_primary_state_ids ! 5874 = 5152 \<and> ts_primary_state_ids ! 5875 = 5154 \<and>
   ts_primary_state_ids ! 5877 = 5156 \<and> ts_primary_state_ids ! 5878 = 5157 \<and>
   ts_primary_state_ids ! 5879 = 5159 \<and> ts_primary_state_ids ! 5880 = 5160 \<and>
   ts_primary_state_ids ! 5883 = 5164 \<and> ts_primary_state_ids ! 5885 = 5166 \<and>
   ts_primary_state_ids ! 5890 = 5173 \<and> ts_primary_state_ids ! 5892 = 5892 \<and>
   ts_primary_state_ids ! 5893 = 5893 \<and> ts_primary_state_ids ! 5894 = 5176 \<and>
   ts_primary_state_ids ! 5896 = 5180 \<and> ts_primary_state_ids ! 5897 = 5182 \<and>
   ts_primary_state_ids ! 5898 = 5184 \<and> ts_primary_state_ids ! 5899 = 5186 \<and>
   ts_primary_state_ids ! 5902 = 5191 \<and> ts_primary_state_ids ! 5904 = 5194 \<and>
   ts_primary_state_ids ! 5909 = 5204 \<and> ts_primary_state_ids ! 5910 = 5207 \<and>
   ts_primary_state_ids ! 5912 = 5210 \<and> ts_primary_state_ids ! 5915 = 5915 \<and>
   ts_primary_state_ids ! 5918 = 4502 \<and> ts_primary_state_ids ! 5919 = 5919 \<and>
   ts_primary_state_ids ! 5923 = 5224 \<and> ts_primary_state_ids ! 5924 = 5225 \<and>
   ts_primary_state_ids ! 5926 = 5926 \<and> ts_primary_state_ids ! 5927 = 5226 \<and>
   ts_primary_state_ids ! 5929 = 5227 \<and> ts_primary_state_ids ! 5930 = 5930 \<and>
   ts_primary_state_ids ! 5931 = 5228 \<and> ts_primary_state_ids ! 5933 = 5933 \<and>
   ts_primary_state_ids ! 5935 = 5232 \<and> ts_primary_state_ids ! 5936 = 5936 \<and>
   ts_primary_state_ids ! 5938 = 5234 \<and> ts_primary_state_ids ! 5940 = 5237 \<and>
   ts_primary_state_ids ! 5943 = 5943 \<and> ts_primary_state_ids ! 5944 = 5238 \<and>
   ts_primary_state_ids ! 5945 = 4805 \<and> ts_primary_state_ids ! 5946 = 5946 \<and>
   ts_primary_state_ids ! 5948 = 5241 \<and> ts_primary_state_ids ! 5949 = 5242 \<and>
   ts_primary_state_ids ! 5950 = 5950 \<and> ts_primary_state_ids ! 5951 = 5951 \<and>
   ts_primary_state_ids ! 5952 = 5244 \<and> ts_primary_state_ids ! 5954 = 5954 \<and>
   ts_primary_state_ids ! 5957 = 5957 \<and> ts_primary_state_ids ! 5958 = 4813 \<and>
   ts_primary_state_ids ! 5959 = 4816 \<and> ts_primary_state_ids ! 5960 = 5249 \<and>
   ts_primary_state_ids ! 5961 = 5961 \<and> ts_primary_state_ids ! 5962 = 5962 \<and>
   ts_primary_state_ids ! 5963 = 5251 \<and> ts_primary_state_ids ! 5964 = 5252 \<and>
   ts_primary_state_ids ! 5965 = 5254 \<and> ts_primary_state_ids ! 5966 = 5256 \<and>
   ts_primary_state_ids ! 5967 = 5257 \<and> ts_primary_state_ids ! 5968 = 5259 \<and>
   ts_primary_state_ids ! 5969 = 5969 \<and> ts_primary_state_ids ! 5972 = 4817 \<and>
   ts_primary_state_ids ! 5974 = 5264 \<and> ts_primary_state_ids ! 5976 = 5265 \<and>
   ts_primary_state_ids ! 5977 = 5977 \<and> ts_primary_state_ids ! 5978 = 5267 \<and>
   ts_primary_state_ids ! 5980 = 4818 \<and> ts_primary_state_ids ! 5981 = 5981 \<and>
   ts_primary_state_ids ! 5982 = 5270 \<and> ts_primary_state_ids ! 5983 = 5983 \<and>
   ts_primary_state_ids ! 5984 = 4819 \<and> ts_primary_state_ids ! 5985 = 5985 \<and>
   ts_primary_state_ids ! 5986 = 5272 \<and> ts_primary_state_ids ! 5987 = 5274 \<and>
   ts_primary_state_ids ! 5988 = 5275 \<and> ts_primary_state_ids ! 5992 = 5992 \<and>
   ts_primary_state_ids ! 5993 = 5279 \<and> ts_primary_state_ids ! 5995 = 5995 \<and>
   ts_primary_state_ids ! 5996 = 5282"
proof -
  have "holds_from (\<lambda>i x. ts_primary_state_ids ! i = x) 5850 ts_primary_state_ids_39"
    by (rule block_places) (rule primary_runs_mem)
  then show ?thesis unfolding ts_primary_state_ids_39_def by (simp del: One_nat_def)
qed

lemma primary_ids_40:
  "ts_primary_state_ids ! 6002 = 5292 \<and> ts_primary_state_ids ! 6003 = 6003 \<and>
   ts_primary_state_ids ! 6005 = 5294 \<and> ts_primary_state_ids ! 6006 = 4826 \<and>
   ts_primary_state_ids ! 6008 = 6008 \<and> ts_primary_state_ids ! 6010 = 5298 \<and>
   ts_primary_state_ids ! 6011 = 5300 \<and> ts_primary_state_ids ! 6012 = 6012 \<and>
   ts_primary_state_ids ! 6013 = 5302 \<and> ts_primary_state_ids ! 6014 = 5304 \<and>
   ts_primary_state_ids ! 6015 = 6015 \<and> ts_primary_state_ids ! 6017 = 6017 \<and>
   ts_primary_state_ids ! 6020 = 5308 \<and> ts_primary_state_ids ! 6022 = 5311 \<and>
   ts_primary_state_ids ! 6027 = 5320 \<and> ts_primary_state_ids ! 6029 = 5323 \<and>
   ts_primary_state_ids ! 6031 = 6031 \<and> ts_primary_state_ids ! 6032 = 5325 \<and>
   ts_primary_state_ids ! 6033 = 6033 \<and> ts_primary_state_ids ! 6039 = 4828 \<and>
   ts_primary_state_ids ! 6042 = 5343 \<and> ts_primary_state_ids ! 6043 = 5344 \<and>
   ts_primary_state_ids ! 6044 = 6044 \<and> ts_primary_state_ids ! 6045 = 6045 \<and>
   ts_primary_state_ids ! 6046 = 5346 \<and> ts_primary_state_ids ! 6047 = 5347 \<and>
   ts_primary_state_ids ! 6051 = 5351 \<and> ts_primary_state_ids ! 6052 = 5352 \<and>
   ts_primary_state_ids ! 6054 = 6054 \<and> ts_primary_state_ids ! 6055 = 6055 \<and>
   ts_primary_state_ids ! 6056 = 4831 \<and> ts_primary_state_ids ! 6057 = 5353 \<and>
   ts_primary_state_ids ! 6059 = 6059 \<and> ts_primary_state_ids ! 6060 = 5356 \<and>
   ts_primary_state_ids ! 6061 = 6061 \<and> ts_primary_state_ids ! 6063 = 4833 \<and>
   ts_primary_state_ids ! 6066 = 6066 \<and> ts_primary_state_ids ! 6067 = 6067 \<and>
   ts_primary_state_ids ! 6069 = 5359 \<and> ts_primary_state_ids ! 6071 = 5360 \<and>
   ts_primary_state_ids ! 6072 = 6072 \<and> ts_primary_state_ids ! 6073 = 5362 \<and>
   ts_primary_state_ids ! 6074 = 5364 \<and> ts_primary_state_ids ! 6076 = 4834 \<and>
   ts_primary_state_ids ! 6079 = 6079 \<and> ts_primary_state_ids ! 6080 = 6080 \<and>
   ts_primary_state_ids ! 6082 = 5368 \<and> ts_primary_state_ids ! 6083 = 5370 \<and>
   ts_primary_state_ids ! 6084 = 6084 \<and> ts_primary_state_ids ! 6085 = 4837 \<and>
   ts_primary_state_ids ! 6086 = 5372 \<and> ts_primary_state_ids ! 6087 = 6087 \<and>
   ts_primary_state_ids ! 6089 = 5374 \<and> ts_primary_state_ids ! 6093 = 6093 \<and>
   ts_primary_state_ids ! 6094 = 4839 \<and> ts_primary_state_ids ! 6095 = 5378 \<and>
   ts_primary_state_ids ! 6096 = 4505 \<and> ts_primary_state_ids ! 6097 = 6097 \<and>
   ts_primary_state_ids ! 6099 = 5380 \<and> ts_primary_state_ids ! 6100 = 5381 \<and>
   ts_primary_state_ids ! 6101 = 5382 \<and> ts_primary_state_ids ! 6102 = 6102 \<and>
   ts_primary_state_ids ! 6104 = 5385 \<and> ts_primary_state_ids ! 6106 = 5386 \<and>
   ts_primary_state_ids ! 6107 = 6107 \<and> ts_primary_state_ids ! 6109 = 5389 \<and>
   ts_primary_state_ids ! 6110 = 5391 \<and> ts_primary_state_ids ! 6113 = 4846 \<and>
   ts_primary_state_ids ! 6114 = 5393 \<and> ts_primary_state_ids ! 6116 = 6116 \<and>
   ts_primary_state_ids ! 6117 = 4848 \<and> ts_primary_state_ids ! 6118 = 6118 \<and>
   ts_primary_state_ids ! 6120 = 6120 \<and> ts_primary_state_ids ! 6121 = 6121 \<and>
   ts_primary_state_ids ! 6122 = 5398 \<and> ts_primary_state_ids ! 6123 = 5400 \<and>
   ts_primary_state_ids ! 6124 = 5402 \<and> ts_primary_state_ids ! 6125 = 6125 \<and>
   ts_primary_state_ids ! 6126 = 5404 \<and> ts_primary_state_ids ! 6127 = 5406 \<and>
   ts_primary_state_ids ! 6129 = 5408 \<and> ts_primary_state_ids ! 6131 = 6131 \<and>
   ts_primary_state_ids ! 6132 = 5410 \<and> ts_primary_state_ids ! 6135 = 5415 \<and>
   ts_primary_state_ids ! 6137 = 5416 \<and> ts_primary_state_ids ! 6139 = 4849 \<and>
   ts_primary_state_ids ! 6141 = 6141 \<and> ts_primary_state_ids ! 6142 = 5418 \<and>
   ts_primary_state_ids ! 6143 = 6143 \<and> ts_primary_state_ids ! 6145 = 6145 \<and>
   ts_primary_state_ids ! 6146 = 5419 \<and> ts_primary_state_ids ! 6147 = 5422 \<and>
   ts_primary_state_ids ! 6148 = 5424 \<and> ts_primary_state_ids ! 6149 = 5425"
proof -
  have "holds_from (\<lambda>i x. ts_primary_state_ids ! i = x) 6000 ts_primary_state_ids_40"
    by (rule block_places) (rule primary_runs_mem)
  then show ?thesis unfolding ts_primary_state_ids_40_def by (simp del: One_nat_def)
qed

lemma primary_ids_41:
  "ts_primary_state_ids ! 6151 = 6151 \<and> ts_primary_state_ids ! 6154 = 5430 \<and>
   ts_primary_state_ids ! 6155 = 5432 \<and> ts_primary_state_ids ! 6156 = 5434 \<and>
   ts_primary_state_ids ! 6157 = 5436 \<and> ts_primary_state_ids ! 6159 = 5438 \<and>
   ts_primary_state_ids ! 6160 = 5440 \<and> ts_primary_state_ids ! 6161 = 5442 \<and>
   ts_primary_state_ids ! 6163 = 6163 \<and> ts_primary_state_ids ! 6165 = 5447 \<and>
   ts_primary_state_ids ! 6166 = 4854 \<and> ts_primary_state_ids ! 6167 = 5448 \<and>
   ts_primary_state_ids ! 6168 = 4510 \<and> ts_primary_state_ids ! 6169 = 6169 \<and>
   ts_primary_state_ids ! 6170 = 5450 \<and> ts_primary_state_ids ! 6172 = 5454 \<and>
   ts_primary_state_ids ! 6173 = 5456 \<and> ts_primary_state_ids ! 6174 = 4856 \<and>
   ts_primary_state_ids ! 6175 = 5457 \<and> ts_primary_state_ids ! 6176 = 5459 \<and>
   ts_primary_state_ids ! 6179 = 5464 \<and> ts_primary_state_ids ! 6180 = 6180 \<and>
   ts_primary_state_ids ! 6182 = 5466 \<and> ts_primary_state_ids ! 6186 = 6186 \<and>
   ts_primary_state_ids ! 6189 = 4857 \<and> ts_primary_state_ids ! 6191 = 5476 \<and>
   ts_primary_state_ids ! 6192 = 5477 \<and> ts_primary_state_ids ! 6193 = 5478 \<and>
   ts_primary_state_ids ! 6194 = 6194 \<and> ts_primary_state_ids ! 6195 = 4858 \<and>
   ts_primary_state_ids ! 6197 = 6197 \<and> ts_primary_state_ids ! 6198 = 6198 \<and>
   ts_primary_state_ids ! 6199 = 5481 \<and> ts_primary_state_ids ! 6200 = 6200 \<and>
   ts_primary_state_ids ! 6205 = 6205 \<and> ts_primary_state_ids ! 6206 = 6206 \<and>
   ts_primary_state_ids ! 6207 = 5485 \<and> ts_primary_state_ids ! 6208 = 5486 \<and>
   ts_primary_state_ids ! 6210 = 6210 \<and> ts_primary_state_ids ! 6211 = 4864 \<and>
   ts_primary_state_ids ! 6212 = 5488 \<and> ts_primary_state_ids ! 6213 = 6213 \<and>
   ts_primary_state_ids ! 6215 = 6215 \<and> ts_primary_state_ids ! 6216 = 5490 \<and>
   ts_primary_state_ids ! 6221 = 4879 \<and> ts_primary_state_ids ! 6222 = 6222 \<and>
   ts_primary_state_ids ! 6223 = 5494 \<and> ts_primary_state_ids ! 6224 = 5497 \<and>
   ts_primary_state_ids ! 6225 = 5499 \<and> ts_primary_state_ids ! 6226 = 6226 \<and>
   ts_primary_state_ids ! 6228 = 5501 \<and> ts_primary_state_ids ! 6229 = 6229 \<and>
   ts_primary_state_ids ! 6231 = 6231 \<and> ts_primary_state_ids ! 6233 = 5505 \<and>
   ts_primary_state_ids ! 6234 = 5507 \<and> ts_primary_state_ids ! 6236 = 5508 \<and>
   ts_primary_state_ids ! 6237 = 5509 \<and> ts_primary_state_ids ! 6238 = 6238 \<and>
   ts_primary_state_ids ! 6240 = 5512 \<and> ts_primary_state_ids ! 6241 = 6241 \<and>
   ts_primary_state_ids ! 6242 = 5513 \<and> ts_primary_state_ids ! 6243 = 5516 \<and>
   ts_primary_state_ids ! 6244 = 6244 \<and> ts_primary_state_ids ! 6246 = 5518 \<and>
   ts_primary_state_ids ! 6247 = 5520 \<and> ts_primary_state_ids ! 6251 = 6251 \<and>
   ts_primary_state_ids ! 6252 = 6252 \<and> ts_primary_state_ids ! 6253 = 6253 \<and>
   ts_primary_state_ids ! 6255 = 5524 \<and> ts_primary_state_ids ! 6256 = 5526 \<and>
   ts_primary_state_ids ! 6257 = 6257 \<and> ts_primary_state_ids ! 6258 = 5528 \<and>
   ts_primary_state_ids ! 6259 = 5530 \<and> ts_primary_state_ids ! 6260 = 6260 \<and>
   ts_primary_state_ids ! 6261 = 5532 \<and> ts_primary_state_ids ! 6264 = 5534 \<and>
   ts_primary_state_ids ! 6265 = 5536 \<and> ts_primary_state_ids ! 6269 = 5541 \<and>
   ts_primary_state_ids ! 6270 = 5542 \<and> ts_primary_state_ids ! 6271 = 6271 \<and>
   ts_primary_state_ids ! 6272 = 6272 \<and> ts_primary_state_ids ! 6273 = 6273 \<and>
   ts_primary_state_ids ! 6275 = 6275 \<and> ts_primary_state_ids ! 6277 = 5545 \<and>
   ts_primary_state_ids ! 6278 = 5546 \<and> ts_primary_state_ids ! 6279 = 5549 \<and>
   ts_primary_state_ids ! 6280 = 5551 \<and> ts_primary_state_ids ! 6282 = 5553 \<and>
   ts_primary_state_ids ! 6284 = 6284 \<and> ts_primary_state_ids ! 6286 = 6286 \<and>
   ts_primary_state_ids ! 6288 = 5558 \<and> ts_primary_state_ids ! 6289 = 5560 \<and>
   ts_primary_state_ids ! 6290 = 5562 \<and> ts_primary_state_ids ! 6291 = 5564 \<and>
   ts_primary_state_ids ! 6292 = 5565 \<and> ts_primary_state_ids ! 6293 = 5567 \<and>
   ts_primary_state_ids ! 6294 = 5569 \<and> ts_primary_state_ids ! 6297 = 6297 \<and>
   ts_primary_state_ids ! 6298 = 5582 \<and> ts_primary_state_ids ! 6299 = 5602"
proof -
  have "holds_from (\<lambda>i x. ts_primary_state_ids ! i = x) 6150 ts_primary_state_ids_41"
    by (rule block_places) (rule primary_runs_mem)
  then show ?thesis unfolding ts_primary_state_ids_41_def by (simp del: One_nat_def)
qed

lemma primary_ids_42:
  "ts_primary_state_ids ! 6301 = 5606 \<and> ts_primary_state_ids ! 6302 = 4897 \<and>
   ts_primary_state_ids ! 6305 = 5623 \<and> ts_primary_state_ids ! 6306 = 5626 \<and>
   ts_primary_state_ids ! 6307 = 5636 \<and> ts_primary_state_ids ! 6308 = 6308 \<and>
   ts_primary_state_ids ! 6309 = 5638 \<and> ts_primary_state_ids ! 6312 = 5645 \<and>
   ts_primary_state_ids ! 6314 = 6314 \<and> ts_primary_state_ids ! 6315 = 5648 \<and>
   ts_primary_state_ids ! 6320 = 6320 \<and> ts_primary_state_ids ! 6323 = 6323 \<and>
   ts_primary_state_ids ! 6325 = 5660 \<and> ts_primary_state_ids ! 6326 = 5673 \<and>
   ts_primary_state_ids ! 6327 = 5675 \<and> ts_primary_state_ids ! 6329 = 6329 \<and>
   ts_primary_state_ids ! 6330 = 5676 \<and> ts_primary_state_ids ! 6331 = 6331 \<and>
   ts_primary_state_ids ! 6332 = 6332 \<and> ts_primary_state_ids ! 6337 = 6337 \<and>
   ts_primary_state_ids ! 6338 = 5687 \<and> ts_primary_state_ids ! 6339 = 5694 \<and>
   ts_primary_state_ids ! 6340 = 6340 \<and> ts_primary_state_ids ! 6344 = 5705 \<and>
   ts_primary_state_ids ! 6345 = 6345 \<and> ts_primary_state_ids ! 6350 = 6350 \<and>
   ts_primary_state_ids ! 6351 = 6351 \<and> ts_primary_state_ids ! 6353 = 5710 \<and>
   ts_primary_state_ids ! 6354 = 5711 \<and> ts_primary_state_ids ! 6355 = 6355 \<and>
   ts_primary_state_ids ! 6356 = 5713 \<and> ts_primary_state_ids ! 6358 = 6358 \<and>
   ts_primary_state_ids ! 6360 = 5715 \<and> ts_primary_state_ids ! 6364 = 6364 \<and>
   ts_primary_state_ids ! 6365 = 5719 \<and> ts_primary_state_ids ! 6366 = 6366 \<and>
   ts_primary_state_ids ! 6368 = 5720 \<and> ts_primary_state_ids ! 6370 = 5723 \<and>
   ts_primary_state_ids ! 6372 = 6372 \<and> ts_primary_state_ids ! 6374 = 5728 \<and>
   ts_primary_state_ids ! 6376 = 5738 \<and> ts_primary_state_ids ! 6378 = 5744 \<and>
   ts_primary_state_ids ! 6379 = 5746 \<and> ts_primary_state_ids ! 6380 = 6380 \<and>
   ts_primary_state_ids ! 6381 = 6381 \<and> ts_primary_state_ids ! 6384 = 6384 \<and>
   ts_primary_state_ids ! 6385 = 5765 \<and> ts_primary_state_ids ! 6386 = 6386 \<and>
   ts_primary_state_ids ! 6387 = 5768 \<and> ts_primary_state_ids ! 6390 = 5769 \<and>
   ts_primary_state_ids ! 6391 = 5777 \<and> ts_primary_state_ids ! 6393 = 6393 \<and>
   ts_primary_state_ids ! 6395 = 5790 \<and> ts_primary_state_ids ! 6396 = 5799 \<and>
   ts_primary_state_ids ! 6397 = 5801 \<and> ts_primary_state_ids ! 6399 = 6399 \<and>
   ts_primary_state_ids ! 6400 = 5802 \<and> ts_primary_state_ids ! 6401 = 5803 \<and>
   ts_primary_state_ids ! 6403 = 5840 \<and> ts_primary_state_ids ! 6406 = 5892 \<and>
   ts_primary_state_ids ! 6407 = 6407 \<and> ts_primary_state_ids ! 6408 = 5893 \<and>
   ts_primary_state_ids ! 6409 = 6409 \<and> ts_primary_state_ids ! 6410 = 5915 \<and>
   ts_primary_state_ids ! 6412 = 5919 \<and> ts_primary_state_ids ! 6416 = 5926 \<and>
   ts_primary_state_ids ! 6417 = 5930 \<and> ts_primary_state_ids ! 6418 = 5933 \<and>
   ts_primary_state_ids ! 6419 = 6419 \<and> ts_primary_state_ids ! 6420 = 5936 \<and>
   ts_primary_state_ids ! 6422 = 6422 \<and> ts_primary_state_ids ! 6424 = 5943 \<and>
   ts_primary_state_ids ! 6425 = 5946 \<and> ts_primary_state_ids ! 6426 = 5950 \<and>
   ts_primary_state_ids ! 6427 = 5951 \<and> ts_primary_state_ids ! 6429 = 5954 \<and>
   ts_primary_state_ids ! 6430 = 5957 \<and> ts_primary_state_ids ! 6431 = 6431 \<and>
   ts_primary_state_ids ! 6432 = 5961 \<and> ts_primary_state_ids ! 6433 = 5962 \<and>
   ts_primary_state_ids ! 6434 = 6434 \<and> ts_primary_state_ids ! 6435 = 5969 \<and>
   ts_primary_state_ids ! 6436 = 6436 \<and> ts_primary_state_ids ! 6437 = 6437 \<and>
   ts_primary_state_ids ! 6440 = 5977 \<and> ts_primary_state_ids ! 6441 = 5981 \<and>
   ts_primary_state_ids ! 6442 = 6442 \<and> ts_primary_state_ids ! 6443 = 5983 \<and>
   ts_primary_state_ids ! 6444 = 5985 \<and> ts_primary_state_ids ! 6445 = 5992 \<and>
   ts_primary_state_ids ! 6446 = 5995 \<and> ts_primary_state_ids ! 6447 = 6003"
proof -
  have "holds_from (\<lambda>i x. ts_primary_state_ids ! i = x) 6300 ts_primary_state_ids_42"
    by (rule block_places) (rule primary_runs_mem)
  then show ?thesis unfolding ts_primary_state_ids_42_def by (simp del: One_nat_def)
qed

lemma primary_ids_43:
  "ts_primary_state_ids ! 6453 = 6453 \<and> ts_primary_state_ids ! 6454 = 6454 \<and>
   ts_primary_state_ids ! 6455 = 6455 \<and> ts_primary_state_ids ! 6456 = 6456 \<and>
   ts_primary_state_ids ! 6459 = 6459 \<and> ts_primary_state_ids ! 6460 = 6460 \<and>
   ts_primary_state_ids ! 6462 = 6008 \<and> ts_primary_state_ids ! 6463 = 6012 \<and>
   ts_primary_state_ids ! 6464 = 6015 \<and> ts_primary_state_ids ! 6465 = 6017 \<and>
   ts_primary_state_ids ! 6468 = 6031 \<and> ts_primary_state_ids ! 6469 = 6033 \<and>
   ts_primary_state_ids ! 6471 = 6045 \<and> ts_primary_state_ids ! 6474 = 6054 \<and>
   ts_primary_state_ids ! 6475 = 6055 \<and> ts_primary_state_ids ! 6476 = 6059 \<and>
   ts_primary_state_ids ! 6477 = 6061 \<and> ts_primary_state_ids ! 6480 = 6066 \<and>
   ts_primary_state_ids ! 6481 = 6067 \<and> ts_primary_state_ids ! 6483 = 6072 \<and>
   ts_primary_state_ids ! 6486 = 6079 \<and> ts_primary_state_ids ! 6487 = 6080 \<and>
   ts_primary_state_ids ! 6488 = 6084 \<and> ts_primary_state_ids ! 6489 = 6087 \<and>
   ts_primary_state_ids ! 6492 = 6093 \<and> ts_primary_state_ids ! 6493 = 6097 \<and>
   ts_primary_state_ids ! 6494 = 6102 \<and> ts_primary_state_ids ! 6495 = 6107 \<and>
   ts_primary_state_ids ! 6498 = 6116 \<and> ts_primary_state_ids ! 6499 = 6118 \<and>
   ts_primary_state_ids ! 6500 = 6120 \<and> ts_primary_state_ids ! 6501 = 6121 \<and>
   ts_primary_state_ids ! 6502 = 6125 \<and> ts_primary_state_ids ! 6504 = 6131 \<and>
   ts_primary_state_ids ! 6506 = 4313 \<and> ts_primary_state_ids ! 6508 = 6141 \<and>
   ts_primary_state_ids ! 6509 = 6143 \<and> ts_primary_state_ids ! 6510 = 6145 \<and>
   ts_primary_state_ids ! 6511 = 6151 \<and> ts_primary_state_ids ! 6514 = 6163 \<and>
   ts_primary_state_ids ! 6516 = 6169 \<and> ts_primary_state_ids ! 6517 = 6180 \<and>
   ts_primary_state_ids ! 6518 = 6186 \<and> ts_primary_state_ids ! 6521 = 4316 \<and>
   ts_primary_state_ids ! 6522 = 4317 \<and> ts_primary_state_ids ! 6524 = 4318 \<and>
   ts_primary_state_ids ! 6525 = 6194 \<and> ts_primary_state_ids ! 6526 = 6197 \<and>
   ts_primary_state_ids ! 6527 = 6198 \<and> ts_primary_state_ids ! 6528 = 6200 \<and>
   ts_primary_state_ids ! 6529 = 4319 \<and> ts_primary_state_ids ! 6533 = 4322 \<and>
   ts_primary_state_ids ! 6534 = 6205 \<and> ts_primary_state_ids ! 6535 = 6206 \<and>
   ts_primary_state_ids ! 6536 = 4323 \<and> ts_primary_state_ids ! 6537 = 4324 \<and>
   ts_primary_state_ids ! 6539 = 6210 \<and> ts_primary_state_ids ! 6540 = 6213 \<and>
   ts_primary_state_ids ! 6542 = 6215 \<and> ts_primary_state_ids ! 6545 = 4327 \<and>
   ts_primary_state_ids ! 6546 = 6222 \<and> ts_primary_state_ids ! 6547 = 6226 \<and>
   ts_primary_state_ids ! 6548 = 4328 \<and> ts_primary_state_ids ! 6550 = 6229 \<and>
   ts_primary_state_ids ! 6551 = 6231 \<and> ts_primary_state_ids ! 6552 = 6238 \<and>
   ts_primary_state_ids ! 6553 = 4330 \<and> ts_primary_state_ids ! 6554 = 6241 \<and>
   ts_primary_state_ids ! 6555 = 6244 \<and> ts_primary_state_ids ! 6557 = 4918 \<and>
   ts_primary_state_ids ! 6559 = 4333 \<and> ts_primary_state_ids ! 6562 = 6251 \<and>
   ts_primary_state_ids ! 6563 = 6252 \<and> ts_primary_state_ids ! 6564 = 4334 \<and>
   ts_primary_state_ids ! 6565 = 4919 \<and> ts_primary_state_ids ! 6566 = 6253 \<and>
   ts_primary_state_ids ! 6567 = 6257 \<and> ts_primary_state_ids ! 6568 = 6260 \<and>
   ts_primary_state_ids ! 6570 = 4335 \<and> ts_primary_state_ids ! 6573 = 4336 \<and>
   ts_primary_state_ids ! 6575 = 6271 \<and> ts_primary_state_ids ! 6576 = 6272 \<and>
   ts_primary_state_ids ! 6578 = 4339 \<and> ts_primary_state_ids ! 6579 = 4340 \<and>
   ts_primary_state_ids ! 6581 = 6273 \<and> ts_primary_state_ids ! 6582 = 6275 \<and>
   ts_primary_state_ids ! 6584 = 4925 \<and> ts_primary_state_ids ! 6585 = 4342 \<and>
   ts_primary_state_ids ! 6590 = 6284 \<and> ts_primary_state_ids ! 6591 = 4345 \<and>
   ts_primary_state_ids ! 6592 = 4346 \<and> ts_primary_state_ids ! 6593 = 6286 \<and>
   ts_primary_state_ids ! 6595 = 4347 \<and> ts_primary_state_ids ! 6597 = 4348 \<and>
   ts_primary_state_ids ! 6598 = 6297"
proof -
  have "holds_from (\<lambda>i x. ts_primary_state_ids ! i = x) 6450 ts_primary_state_ids_43"
    by (rule block_places) (rule primary_runs_mem)
  then show ?thesis unfolding ts_primary_state_ids_43_def by (simp del: One_nat_def)
qed

lemma primary_ids_44:
  "ts_primary_state_ids ! 6600 = 4936 \<and> ts_primary_state_ids ! 6603 = 4351 \<and>
   ts_primary_state_ids ! 6604 = 4937 \<and> ts_primary_state_ids ! 6606 = 6308 \<and>
   ts_primary_state_ids ! 6607 = 6314 \<and> ts_primary_state_ids ! 6608 = 6320 \<and>
   ts_primary_state_ids ! 6609 = 6323 \<and> ts_primary_state_ids ! 6611 = 4352 \<and>
   ts_primary_state_ids ! 6612 = 4939 \<and> ts_primary_state_ids ! 6613 = 4353 \<and>
   ts_primary_state_ids ! 6615 = 6329 \<and> ts_primary_state_ids ! 6616 = 4354 \<and>
   ts_primary_state_ids ! 6618 = 6331 \<and> ts_primary_state_ids ! 6619 = 4941 \<and>
   ts_primary_state_ids ! 6621 = 6332 \<and> ts_primary_state_ids ! 6625 = 6337 \<and>
   ts_primary_state_ids ! 6626 = 6340 \<and> ts_primary_state_ids ! 6627 = 4357 \<and>
   ts_primary_state_ids ! 6629 = 4358 \<and> ts_primary_state_ids ! 6630 = 6345 \<and>
   ts_primary_state_ids ! 6633 = 4359 \<and> ts_primary_state_ids ! 6634 = 4360 \<and>
   ts_primary_state_ids ! 6636 = 4361 \<and> ts_primary_state_ids ! 6637 = 4362 \<and>
   ts_primary_state_ids ! 6638 = 6350 \<and> ts_primary_state_ids ! 6639 = 6351 \<and>
   ts_primary_state_ids ! 6640 = 6355 \<and> ts_primary_state_ids ! 6641 = 6358 \<and>
   ts_primary_state_ids ! 6642 = 4363 \<and> ts_primary_state_ids ! 6645 = 6364 \<and>
   ts_primary_state_ids ! 6646 = 4364 \<and> ts_primary_state_ids ! 6647 = 6366 \<and>
   ts_primary_state_ids ! 6650 = 4951 \<and> ts_primary_state_ids ! 6652 = 6372 \<and>
   ts_primary_state_ids ! 6655 = 6380 \<and> ts_primary_state_ids ! 6656 = 4367 \<and>
   ts_primary_state_ids ! 6657 = 6381 \<and> ts_primary_state_ids ! 6658 = 6384 \<and>
   ts_primary_state_ids ! 6659 = 6386 \<and> ts_primary_state_ids ! 6660 = 4368 \<and>
   ts_primary_state_ids ! 6663 = 4369 \<and> ts_primary_state_ids ! 6664 = 4370 \<and>
   ts_primary_state_ids ! 6665 = 4371 \<and> ts_primary_state_ids ! 6666 = 6393 \<and>
   ts_primary_state_ids ! 6667 = 6399 \<and> ts_primary_state_ids ! 6668 = 6407 \<and>
   ts_primary_state_ids ! 6669 = 6409 \<and> ts_primary_state_ids ! 6673 = 6419 \<and>
   ts_primary_state_ids ! 6674 = 6422 \<and> ts_primary_state_ids ! 6675 = 6431 \<and>
   ts_primary_state_ids ! 6676 = 6434 \<and> ts_primary_state_ids ! 6677 = 6436 \<and>
   ts_primary_state_ids ! 6678 = 6437 \<and> ts_primary_state_ids ! 6680 = 4374 \<and>
   ts_primary_state_ids ! 6681 = 4375 \<and> ts_primary_state_ids ! 6682 = 4376 \<and>
   ts_primary_state_ids ! 6683 = 4377 \<and> ts_primary_state_ids ! 6686 = 4380 \<and>
   ts_primary_state_ids ! 6687 = 4381 \<and> ts_primary_state_ids ! 6689 = 4953 \<and>
   ts_primary_state_ids ! 6690 = 4383 \<and> ts_primary_state_ids ! 6692 = 4519 \<and>
   ts_primary_state_ids ! 6694 = 4386 \<and> ts_primary_state_ids ! 6695 = 4387 \<and>
   ts_primary_state_ids ! 6696 = 4954 \<and> ts_primary_state_ids ! 6697 = 4388 \<and>
   ts_primary_state_ids ! 6698 = 6442 \<and> ts_primary_state_ids ! 6701 = 6453 \<and>
   ts_primary_state_ids ! 6702 = 6454 \<and> ts_primary_state_ids ! 6703 = 6455 \<and>
   ts_primary_state_ids ! 6704 = 6456 \<and> ts_primary_state_ids ! 6705 = 4389 \<and>
   ts_primary_state_ids ! 6707 = 4956 \<and> ts_primary_state_ids ! 6709 = 4392 \<and>
   ts_primary_state_ids ! 6710 = 4393 \<and> ts_primary_state_ids ! 6711 = 4394 \<and>
   ts_primary_state_ids ! 6712 = 4395 \<and> ts_primary_state_ids ! 6713 = 4396 \<and>
   ts_primary_state_ids ! 6716 = 6459 \<and> ts_primary_state_ids ! 6717 = 6460 \<and>
   ts_primary_state_ids ! 6718 = 6044 \<and> ts_primary_state_ids ! 6723 = 6723 \<and>
   ts_primary_state_ids ! 6727 = 6723"
proof -
  have "holds_from (\<lambda>i x. ts_primary_state_ids ! i = x) 6600 ts_primary_state_ids_44"
    by (rule block_places) (rule primary_runs_mem)
  then show ?thesis unfolding ts_primary_state_ids_44_def by (simp del: One_nat_def)
qed

lemma primary_ids_64:
  "ts_primary_state_ids ! 9691 = 9691 \<and> ts_primary_state_ids ! 9724 = 9691"
proof -
  have "holds_from (\<lambda>i x. ts_primary_state_ids ! i = x) 9600 ts_primary_state_ids_64"
    by (rule block_places) (rule primary_runs_mem)
  then show ?thesis unfolding ts_primary_state_ids_64_def by (simp del: One_nat_def)
qed

lemma primary_ids_78:
  "ts_primary_state_ids ! 11814 = 11814"
proof -
  have "holds_from (\<lambda>i x. ts_primary_state_ids ! i = x) 11700 ts_primary_state_ids_78"
    by (rule block_places) (rule primary_runs_mem)
  then show ?thesis unfolding ts_primary_state_ids_78_def by (simp del: One_nat_def)
qed

lemma primary_ids_79:
  "ts_primary_state_ids ! 11863 = 11863 \<and> ts_primary_state_ids ! 11994 = 11863"
proof -
  have "holds_from (\<lambda>i x. ts_primary_state_ids ! i = x) 11850 ts_primary_state_ids_79"
    by (rule block_places) (rule primary_runs_mem)
  then show ?thesis unfolding ts_primary_state_ids_79_def by (simp del: One_nat_def)
qed

lemma primary_ids_81:
  "ts_primary_state_ids ! 12160 = 4006 \<and> ts_primary_state_ids ! 12239 = 11814"
proof -
  have "holds_from (\<lambda>i x. ts_primary_state_ids ! i = x) 12150 ts_primary_state_ids_81"
    by (rule block_places) (rule primary_runs_mem)
  then show ?thesis unfolding ts_primary_state_ids_81_def by (simp del: One_nat_def)
qed

lemma primary_ids_82:
  "ts_primary_state_ids ! 12315 = 12315 \<and> ts_primary_state_ids ! 12367 = 4006 \<and>
   ts_primary_state_ids ! 12433 = 12315"
proof -
  have "holds_from (\<lambda>i x. ts_primary_state_ids ! i = x) 12300 ts_primary_state_ids_82"
    by (rule block_places) (rule primary_runs_mem)
  then show ?thesis unfolding ts_primary_state_ids_82_def by (simp del: One_nat_def)
qed

lemma primary_ids_83:
  "ts_primary_state_ids ! 12482 = 12482 \<and> ts_primary_state_ids ! 12511 = 12511 \<and>
   ts_primary_state_ids ! 12521 = 12511 \<and> ts_primary_state_ids ! 12524 = 12524 \<and>
   ts_primary_state_ids ! 12530 = 12524"
proof -
  have "holds_from (\<lambda>i x. ts_primary_state_ids ! i = x) 12450 ts_primary_state_ids_83"
    by (rule block_places) (rule primary_runs_mem)
  then show ?thesis unfolding ts_primary_state_ids_83_def by (simp del: One_nat_def)
qed

lemma primary_ids_84:
  "ts_primary_state_ids ! 12649 = 12649 \<and> ts_primary_state_ids ! 12683 = 12649 \<and>
   ts_primary_state_ids ! 12686 = 12482"
proof -
  have "holds_from (\<lambda>i x. ts_primary_state_ids ! i = x) 12600 ts_primary_state_ids_84"
    by (rule block_places) (rule primary_runs_mem)
  then show ?thesis unfolding ts_primary_state_ids_84_def by (simp del: One_nat_def)
qed

section \<open>Shifts\<close>

lemma shifts_0:
  "actions_shift 0 = None \<and> actions_shift 125 = Some (4004, False) \<and>
   actions_shift 129 = Some (4031, False) \<and> actions_shift 131 = Some (4073, False) \<and>
   actions_shift 135 = Some (4190, False) \<and> actions_shift 137 = Some (4229, False) \<and>
   actions_shift 141 = Some (12160, False) \<and> actions_shift 143 = None \<and>
   actions_shift 163 = Some (4066, False) \<and> actions_shift 190 = Some (11863, False) \<and>
   actions_shift 193 = Some (12649, False) \<and> actions_shift 196 = Some (4171, False) \<and>
   actions_shift 199 = Some (1846, False) \<and> actions_shift 202 = Some (6723, False) \<and>
   actions_shift 205 = Some (3949, False) \<and> actions_shift 208 = Some (4118, False) \<and>
   actions_shift 211 = Some (12511, False) \<and> actions_shift 214 = Some (3960, False) \<and>
   actions_shift 217 = Some (12315, False) \<and> actions_shift 238 = Some (12524, False) \<and>
   actions_shift 244 = Some (12482, False) \<and> actions_shift 280 = Some (4263, False) \<and>
   actions_shift 283 = Some (11994, False) \<and> actions_shift 286 = Some (12683, False) \<and>
   actions_shift 289 = Some (4172, False) \<and> actions_shift 292 = Some (1845, False) \<and>
   actions_shift 295 = Some (6727, False) \<and> actions_shift 298 = Some (3994, False) \<and>
   actions_shift 301 = Some (4173, False) \<and> actions_shift 304 = Some (12521, False) \<and>
   actions_shift 307 = Some (3974, False) \<and> actions_shift 310 = Some (12433, False) \<and>
   actions_shift 313 = Some (12530, False) \<and> actions_shift 316 = Some (12686, False) \<and>
   actions_shift 319 = Some (4056, False) \<and> actions_shift 321 = Some (4081, False) \<and>
   actions_shift 323 = Some (4006, False) \<and> actions_shift 325 = Some (12367, False) \<and>
   actions_shift 353 = Some (6539, False) \<and> actions_shift 355 = Some (861, False)"
proof -
  have "set parse_actions_0 \<subseteq> set parse_action_rows" by (auto simp: parse_action_rows_def)
  from rows_shifts [OF this] show ?thesis unfolding parse_actions_0_def
    by (simp add: entry_shift_simps del: One_nat_def)
qed

lemma shifts_1:
  "actions_shift 357 = Some (6117, False) \<and> actions_shift 359 = Some (102, False) \<and>
   actions_shift 361 = Some (6082, False) \<and> actions_shift 363 = Some (756, False) \<and>
   actions_shift 365 = Some (6083, False) \<and> actions_shift 367 = Some (757, False) \<and>
   actions_shift 369 = Some (4723, False) \<and> actions_shift 371 = Some (161, False) \<and>
   actions_shift 373 = Some (6095, False) \<and> actions_shift 375 = Some (759, False) \<and>
   actions_shift 377 = Some (5565, False) \<and> actions_shift 379 = Some (347, False) \<and>
   actions_shift 381 = Some (5492, False) \<and> actions_shift 383 = Some (85, False) \<and>
   actions_shift 385 = Some (6522, False) \<and> actions_shift 387 = Some (435, False) \<and>
   actions_shift 389 = Some (6106, False) \<and> actions_shift 391 = Some (761, False) \<and>
   actions_shift 393 = Some (6109, False) \<and> actions_shift 395 = Some (762, False) \<and>
   actions_shift 397 = Some (5238, False) \<and> actions_shift 399 = Some (272, False) \<and>
   actions_shift 401 = Some (6122, False) \<and> actions_shift 403 = Some (764, False) \<and>
   actions_shift 405 = Some (5602, False) \<and> actions_shift 407 = Some (349, False) \<and>
   actions_shift 409 = Some (5241, False) \<and> actions_shift 411 = Some (273, False) \<and>
   actions_shift 413 = Some (6127, False) \<and> actions_shift 415 = Some (765, False) \<and>
   actions_shift 417 = Some (4937, False) \<and> actions_shift 419 = Some (570, False) \<and>
   actions_shift 421 = Some (4763, False) \<and> actions_shift 423 = Some (165, False) \<and>
   actions_shift 425 = Some (4951, False) \<and> actions_shift 427 = Some (572, False) \<and>
   actions_shift 429 = Some (4953, False) \<and> actions_shift 431 = Some (573, False) \<and>
   actions_shift 433 = Some (6146, False) \<and> actions_shift 435 = Some (768, False) \<and>
   actions_shift 437 = Some (6147, False) \<and> actions_shift 439 = Some (769, False) \<and>
   actions_shift 441 = Some (5626, False) \<and> actions_shift 443 = Some (351, False) \<and>
   actions_shift 445 = Some (6154, False) \<and> actions_shift 447 = Some (771, False) \<and>
   actions_shift 449 = Some (4961, False) \<and> actions_shift 451 = Some (575, False) \<and>
   actions_shift 453 = Some (5249, False) \<and> actions_shift 455 = Some (275, False) \<and>
   actions_shift 457 = Some (6159, False) \<and> actions_shift 459 = Some (772, False) \<and>
   actions_shift 461 = Some (6174, False) \<and> actions_shift 463 = Some (104, False) \<and>
   actions_shift 465 = Some (4772, False) \<and> actions_shift 467 = Some (167, False) \<and>
   actions_shift 469 = Some (6167, False) \<and> actions_shift 471 = Some (774, False) \<and>
   actions_shift 473 = Some (4981, False) \<and> actions_shift 475 = Some (577, False) \<and>
   actions_shift 477 = Some (4982, False) \<and> actions_shift 479 = Some (578, False) \<and>
   actions_shift 481 = Some (6173, False) \<and> actions_shift 483 = Some (776, False) \<and>
   actions_shift 485 = Some (6564, False) \<and> actions_shift 487 = Some (440, False) \<and>
   actions_shift 489 = Some (4995, False) \<and> actions_shift 491 = Some (580, False) \<and>
   actions_shift 493 = Some (5256, False) \<and> actions_shift 495 = Some (276, False) \<and>
   actions_shift 497 = Some (4777, False) \<and> actions_shift 499 = Some (168, False) \<and>
   actions_shift 501 = Some (5027, False) \<and> actions_shift 503 = Some (581, False) \<and>
   actions_shift 505 = Some (5020, False) \<and> actions_shift 507 = Some (217, False) \<and>
   actions_shift 509 = Some (5265, False) \<and> actions_shift 511 = Some (278, False) \<and>
   actions_shift 513 = Some (4673, False) \<and> actions_shift 515 = Some (126, False) \<and>
   actions_shift 517 = Some (6208, False) \<and> actions_shift 519 = Some (783, False) \<and>
   actions_shift 521 = Some (6592, False) \<and> actions_shift 523 = Some (444, False) \<and>
   actions_shift 525 = Some (6223, False) \<and> actions_shift 527 = Some (785, False) \<and>
   actions_shift 529 = Some (6224, False) \<and> actions_shift 531 = Some (786, False) \<and>
   actions_shift 533 = Some (5034, False) \<and> actions_shift 535 = Some (219, False) \<and>
   actions_shift 537 = Some (6233, False) \<and> actions_shift 539 = Some (788, False) \<and>
   actions_shift 541 = Some (6603, False) \<and> actions_shift 543 = Some (446, False) \<and>
   actions_shift 545 = Some (6611, False) \<and> actions_shift 547 = Some (447, False) \<and>
   actions_shift 549 = Some (5206, False) \<and> actions_shift 551 = Some (589, False) \<and>
   actions_shift 553 = Some (6242, False) \<and> actions_shift 555 = Some (790, False) \<and>
   actions_shift 557 = Some (6243, False) \<and> actions_shift 559 = Some (791, False) \<and>
   actions_shift 561 = Some (5272, False) \<and> actions_shift 563 = Some (280, False) \<and>
   actions_shift 565 = Some (6255, False) \<and> actions_shift 567 = Some (793, False) \<and>
   actions_shift 569 = Some (5216, False) \<and> actions_shift 571 = Some (591, False) \<and>
   actions_shift 573 = Some (5218, False) \<and> actions_shift 575 = Some (592, False) \<and>
   actions_shift 577 = Some (6261, False) \<and> actions_shift 579 = Some (794, False) \<and>
   actions_shift 581 = Some (6627, False) \<and> actions_shift 583 = Some (449, False) \<and>
   actions_shift 585 = Some (5236, False) \<and> actions_shift 587 = Some (594, False) \<and>
   actions_shift 589 = Some (4789, False) \<and> actions_shift 591 = Some (170, False) \<and>
   actions_shift 593 = Some (5711, False) \<and> actions_shift 595 = Some (359, False) \<and>
   actions_shift 597 = Some (6278, False) \<and> actions_shift 599 = Some (797, False) \<and>
   actions_shift 601 = Some (6279, False) \<and> actions_shift 603 = Some (798, False) \<and>
   actions_shift 605 = Some (5316, False) \<and> actions_shift 607 = Some (70, False) \<and>
   actions_shift 609 = Some (6288, False) \<and> actions_shift 611 = Some (800, False) \<and>
   actions_shift 613 = Some (5271, False) \<and> actions_shift 615 = Some (596, False) \<and>
   actions_shift 617 = Some (5283, False) \<and> actions_shift 619 = Some (597, False) \<and>
   actions_shift 621 = Some (6292, False) \<and> actions_shift 623 = Some (801, False) \<and>
   actions_shift 625 = Some (5040, False) \<and> actions_shift 627 = Some (221, False) \<and>
   actions_shift 629 = Some (5318, False) \<and> actions_shift 631 = Some (599, False) \<and>
   actions_shift 633 = Some (6299, False) \<and> actions_shift 635 = Some (803, False) \<and>
   actions_shift 637 = Some (5292, False) \<and> actions_shift 639 = Some (285, False) \<and>
   actions_shift 641 = Some (5511, False) \<and> actions_shift 643 = Some (87, False) \<and>
   actions_shift 645 = Some (6306, False) \<and> actions_shift 647 = Some (805, False) \<and>
   actions_shift 649 = Some (5337, False) \<and> actions_shift 651 = Some (600, False) \<and>
   actions_shift 653 = Some (4804, False) \<and> actions_shift 655 = Some (171, False)"
proof -
  have "set parse_actions_1 \<subseteq> set parse_action_rows" by (auto simp: parse_action_rows_def)
  from rows_shifts [OF this] show ?thesis unfolding parse_actions_1_def
    by (simp add: entry_shift_simps del: One_nat_def)
qed

lemma shifts_2:
  "actions_shift 657 = Some (5738, False) \<and> actions_shift 659 = Some (363, False) \<and>
   actions_shift 661 = Some (5369, False) \<and> actions_shift 663 = Some (602, False) \<and>
   actions_shift 665 = Some (5300, False) \<and> actions_shift 667 = Some (287, False) \<and>
   actions_shift 669 = Some (5765, False) \<and> actions_shift 671 = Some (365, False) \<and>
   actions_shift 673 = Some (5768, False) \<and> actions_shift 675 = Some (366, False) \<and>
   actions_shift 677 = Some (5073, False) \<and> actions_shift 679 = Some (51, False) \<and>
   actions_shift 681 = Some (5790, False) \<and> actions_shift 683 = Some (368, False) \<and>
   actions_shift 685 = Some (5054, False) \<and> actions_shift 687 = Some (226, False) \<and>
   actions_shift 689 = Some (4486, False) \<and> actions_shift 691 = Some (135, False) \<and>
   actions_shift 693 = Some (6354, False) \<and> actions_shift 695 = Some (813, False) \<and>
   actions_shift 697 = Some (5320, False) \<and> actions_shift 699 = Some (292, False) \<and>
   actions_shift 701 = Some (4802, False) \<and> actions_shift 703 = Some (32, False) \<and>
   actions_shift 705 = Some (5069, False) \<and> actions_shift 707 = Some (231, False) \<and>
   actions_shift 709 = Some (5893, False) \<and> actions_shift 711 = Some (371, False) \<and>
   actions_shift 713 = Some (5533, False) \<and> actions_shift 715 = Some (615, False) \<and>
   actions_shift 717 = Some (6376, False) \<and> actions_shift 719 = Some (817, False) \<and>
   actions_shift 721 = Some (6695, False) \<and> actions_shift 723 = Some (455, False) \<and>
   actions_shift 725 = Some (6385, False) \<and> actions_shift 727 = Some (819, False) \<and>
   actions_shift 729 = Some (6387, False) \<and> actions_shift 731 = Some (820, False) \<and>
   actions_shift 733 = Some (4500, False) \<and> actions_shift 735 = Some (137, False) \<and>
   actions_shift 737 = Some (6395, False) \<and> actions_shift 739 = Some (822, False) \<and>
   actions_shift 741 = Some (5926, False) \<and> actions_shift 743 = Some (373, False) \<and>
   actions_shift 745 = Some (5930, False) \<and> actions_shift 747 = Some (374, False) \<and>
   actions_shift 749 = Some (4506, False) \<and> actions_shift 751 = Some (138, False) \<and>
   actions_shift 753 = Some (5577, False) \<and> actions_shift 755 = Some (619, False) \<and>
   actions_shift 757 = Some (5943, False) \<and> actions_shift 759 = Some (376, False) \<and>
   actions_shift 761 = Some (6408, False) \<and> actions_shift 763 = Some (825, False) \<and>
   actions_shift 765 = Some (5583, False) \<and> actions_shift 767 = Some (621, False) \<and>
   actions_shift 769 = Some (6416, False) \<and> actions_shift 771 = Some (827, False) \<and>
   actions_shift 773 = Some (6417, False) \<and> actions_shift 775 = Some (828, False) \<and>
   actions_shift 777 = Some (5584, False) \<and> actions_shift 779 = Some (622, False) \<and>
   actions_shift 781 = Some (6424, False) \<and> actions_shift 783 = Some (830, False) \<and>
   actions_shift 785 = Some (5059, False) \<and> actions_shift 787 = Some (49, False) \<and>
   actions_shift 789 = Some (5589, False) \<and> actions_shift 791 = Some (624, False) \<and>
   actions_shift 793 = Some (4514, False) \<and> actions_shift 795 = Some (140, False) \<and>
   actions_shift 797 = Some (6430, False) \<and> actions_shift 799 = Some (832, False) \<and>
   actions_shift 801 = Some (6432, False) \<and> actions_shift 803 = Some (833, False) \<and>
   actions_shift 805 = Some (5605, False) \<and> actions_shift 807 = Some (625, False) \<and>
   actions_shift 809 = Some (6440, False) \<and> actions_shift 811 = Some (835, False) \<and>
   actions_shift 813 = Some (5253, False) \<and> actions_shift 815 = Some (63, False) \<and>
   actions_shift 817 = Some (5957, False) \<and> actions_shift 819 = Some (378, False) \<and>
   actions_shift 821 = Some (6445, False) \<and> actions_shift 823 = Some (836, False) \<and>
   actions_shift 825 = Some (5961, False) \<and> actions_shift 827 = Some (379, False) \<and>
   actions_shift 829 = Some (5423, False) \<and> actions_shift 831 = Some (79, False) \<and>
   actions_shift 833 = Some (5977, False) \<and> actions_shift 835 = Some (381, False) \<and>
   actions_shift 837 = Some (5429, False) \<and> actions_shift 839 = Some (80, False) \<and>
   actions_shift 841 = Some (4526, False) \<and> actions_shift 843 = Some (142, False) \<and>
   actions_shift 845 = Some (5992, False) \<and> actions_shift 847 = Some (382, False) \<and>
   actions_shift 849 = Some (4878, False) \<and> actions_shift 851 = Some (184, False) \<and>
   actions_shift 853 = Some (4530, False) \<and> actions_shift 855 = Some (143, False) \<and>
   actions_shift 857 = Some (5360, False) \<and> actions_shift 859 = Some (300, False) \<and>
   actions_shift 861 = Some (6475, False) \<and> actions_shift 863 = Some (841, False) \<and>
   actions_shift 865 = Some (5643, False) \<and> actions_shift 867 = Some (638, False) \<and>
   actions_shift 869 = Some (4965, False) \<and> actions_shift 871 = Some (42, False) \<and>
   actions_shift 873 = Some (4458, False) \<and> actions_shift 875 = Some (462, False) \<and>
   actions_shift 877 = Some (5368, False) \<and> actions_shift 879 = Some (302, False) \<and>
   actions_shift 881 = Some (5370, False) \<and> actions_shift 883 = Some (303, False) \<and>
   actions_shift 885 = Some (6487, False) \<and> actions_shift 887 = Some (845, False) \<and>
   actions_shift 889 = Some (4555, False) \<and> actions_shift 891 = Some (145, False) \<and>
   actions_shift 893 = Some (6492, False) \<and> actions_shift 895 = Some (847, False) \<and>
   actions_shift 897 = Some (6493, False) \<and> actions_shift 899 = Some (848, False) \<and>
   actions_shift 901 = Some (5664, False) \<and> actions_shift 903 = Some (642, False) \<and>
   actions_shift 905 = Some (6498, False) \<and> actions_shift 907 = Some (850, False) \<and>
   actions_shift 909 = Some (5378, False) \<and> actions_shift 911 = Some (305, False) \<and>
   actions_shift 913 = Some (5669, False) \<and> actions_shift 915 = Some (644, False) \<and>
   actions_shift 917 = Some (5670, False) \<and> actions_shift 919 = Some (645, False) \<and>
   actions_shift 921 = Some (6604, False) \<and> actions_shift 923 = Some (115, False) \<and>
   actions_shift 925 = Some (5678, False) \<and> actions_shift 927 = Some (647, False) \<and>
   actions_shift 929 = Some (6509, False) \<and> actions_shift 931 = Some (853, False) \<and>
   actions_shift 933 = Some (6055, False) \<and> actions_shift 935 = Some (387, False) \<and>
   actions_shift 937 = Some (6514, False) \<and> actions_shift 939 = Some (855, False) \<and>
   actions_shift 941 = Some (6516, False) \<and> actions_shift 943 = Some (856, False) \<and>
   actions_shift 945 = Some (5682, False) \<and> actions_shift 947 = Some (648, False) \<and>
   actions_shift 949 = Some (6525, False) \<and> actions_shift 951 = Some (858, False) \<and>
   actions_shift 953 = Some (5959, False) \<and> actions_shift 955 = Some (96, False)"
proof -
  have "set parse_actions_2 \<subseteq> set parse_action_rows" by (auto simp: parse_action_rows_def)
  from rows_shifts [OF this] show ?thesis unfolding parse_actions_2_def
    by (simp add: entry_shift_simps del: One_nat_def)
qed

lemma shifts_3:
  "actions_shift 957 = Some (4895, False) \<and> actions_shift 959 = Some (188, False) \<and>
   actions_shift 961 = Some (5688, False) \<and> actions_shift 963 = Some (650, False) \<and>
   actions_shift 965 = Some (6535, False) \<and> actions_shift 967 = Some (860, False) \<and>
   actions_shift 969 = Some (4848, False) \<and> actions_shift 971 = Some (557, False) \<and>
   actions_shift 973 = Some (5386, False) \<and> actions_shift 975 = Some (307, False) \<and>
   actions_shift 977 = Some (6546, False) \<and> actions_shift 979 = Some (863, False) \<and>
   actions_shift 981 = Some (5389, False) \<and> actions_shift 983 = Some (308, False) \<and>
   actions_shift 985 = Some (5120, False) \<and> actions_shift 987 = Some (242, False) \<and>
   actions_shift 989 = Some (6552, False) \<and> actions_shift 991 = Some (864, False) \<and>
   actions_shift 993 = Some (4834, False) \<and> actions_shift 995 = Some (555, False) \<and>
   actions_shift 997 = Some (6080, False) \<and> actions_shift 999 = Some (391, False) \<and>
   actions_shift 1001 = Some (5398, False) \<and> actions_shift 1003 = Some (310, False) \<and>
   actions_shift 1005 = Some (5729, False) \<and> actions_shift 1007 = Some (660, False) \<and>
   actions_shift 1009 = Some (6093, False) \<and> actions_shift 1011 = Some (393, False) \<and>
   actions_shift 1013 = Some (6097, False) \<and> actions_shift 1015 = Some (394, False) \<and>
   actions_shift 1017 = Some (4574, False) \<and> actions_shift 1019 = Some (146, False) \<and>
   actions_shift 1021 = Some (5546, False) \<and> actions_shift 1023 = Some (343, False) \<and>
   actions_shift 1025 = Some (6116, False) \<and> actions_shift 1027 = Some (396, False) \<and>
   actions_shift 1029 = Some (4902, False) \<and> actions_shift 1031 = Some (190, False) \<and>
   actions_shift 1033 = Some (5406, False) \<and> actions_shift 1035 = Some (311, False) \<and>
   actions_shift 1037 = Some (5549, False) \<and> actions_shift 1039 = Some (344, False) \<and>
   actions_shift 1041 = Some (6607, False) \<and> actions_shift 1043 = Some (870, False) \<and>
   actions_shift 1045 = Some (4904, False) \<and> actions_shift 1047 = Some (191, False) \<and>
   actions_shift 1049 = Some (5130, False) \<and> actions_shift 1051 = Some (245, False) \<and>
   actions_shift 1053 = Some (5132, False) \<and> actions_shift 1055 = Some (246, False) \<and>
   actions_shift 1057 = Some (6143, False) \<and> actions_shift 1059 = Some (399, False) \<and>
   actions_shift 1061 = Some (6650, False) \<and> actions_shift 1063 = Some (117, False) \<and>
   actions_shift 1065 = Some (5771, False) \<and> actions_shift 1067 = Some (671, False) \<and>
   actions_shift 1069 = Some (6163, False) \<and> actions_shift 1071 = Some (401, False) \<and>
   actions_shift 1073 = Some (5781, False) \<and> actions_shift 1075 = Some (673, False) \<and>
   actions_shift 1077 = Some (6639, False) \<and> actions_shift 1079 = Some (875, False) \<and>
   actions_shift 1081 = Some (6169, False) \<and> actions_shift 1083 = Some (402, False) \<and>
   actions_shift 1085 = Some (5419, False) \<and> actions_shift 1087 = Some (314, False) \<and>
   actions_shift 1089 = Some (5785, False) \<and> actions_shift 1091 = Some (675, False) \<and>
   actions_shift 1093 = Some (6194, False) \<and> actions_shift 1095 = Some (404, False) \<and>
   actions_shift 1097 = Some (5422, False) \<and> actions_shift 1099 = Some (315, False) \<and>
   actions_shift 1101 = Some (6657, False) \<and> actions_shift 1103 = Some (879, False) \<and>
   actions_shift 1105 = Some (5139, False) \<and> actions_shift 1107 = Some (248, False) \<and>
   actions_shift 1109 = Some (6666, False) \<and> actions_shift 1111 = Some (881, False) \<and>
   actions_shift 1113 = Some (6667, False) \<and> actions_shift 1115 = Some (882, False) \<and>
   actions_shift 1117 = Some (5798, False) \<and> actions_shift 1119 = Some (680, False) \<and>
   actions_shift 1121 = Some (6673, False) \<and> actions_shift 1123 = Some (884, False) \<and>
   actions_shift 1125 = Some (5430, False) \<and> actions_shift 1127 = Some (317, False) \<and>
   actions_shift 1129 = Some (6206, False) \<and> actions_shift 1131 = Some (406, False) \<and>
   actions_shift 1133 = Some (5815, False) \<and> actions_shift 1135 = Some (685, False) \<and>
   actions_shift 1137 = Some (4583, False) \<and> actions_shift 1139 = Some (492, False) \<and>
   actions_shift 1141 = Some (6210, False) \<and> actions_shift 1143 = Some (407, False) \<and>
   actions_shift 1145 = Some (4912, False) \<and> actions_shift 1147 = Some (193, False) \<and>
   actions_shift 1149 = Some (6222, False) \<and> actions_shift 1151 = Some (409, False) \<and>
   actions_shift 1153 = Some (6689, False) \<and> actions_shift 1155 = Some (118, False) \<and>
   actions_shift 1157 = Some (5438, False) \<and> actions_shift 1159 = Some (318, False) \<and>
   actions_shift 1161 = Some (6238, False) \<and> actions_shift 1163 = Some (410, False) \<and>
   actions_shift 1165 = Some (4622, False) \<and> actions_shift 1167 = Some (501, False) \<and>
   actions_shift 1169 = Some (5144, False) \<and> actions_shift 1171 = Some (249, False) \<and>
   actions_shift 1173 = Some (4915, False) \<and> actions_shift 1175 = Some (194, False) \<and>
   actions_shift 1177 = Some (4317, False) \<and> actions_shift 1179 = Some (889, False) \<and>
   actions_shift 1181 = Some (5448, False) \<and> actions_shift 1183 = Some (320, False) \<and>
   actions_shift 1185 = Some (4599, False) \<and> actions_shift 1187 = Some (148, False) \<and>
   actions_shift 1189 = Some (5152, False) \<and> actions_shift 1191 = Some (251, False) \<and>
   actions_shift 1193 = Some (4642, False) \<and> actions_shift 1195 = Some (508, False) \<and>
   actions_shift 1197 = Some (5456, False) \<and> actions_shift 1199 = Some (322, False) \<and>
   actions_shift 1201 = Some (5849, False) \<and> actions_shift 1203 = Some (696, False) \<and>
   actions_shift 1205 = Some (5972, False) \<and> actions_shift 1207 = Some (97, False) \<and>
   actions_shift 1209 = Some (4646, False) \<and> actions_shift 1211 = Some (510, False) \<and>
   actions_shift 1213 = Some (4334, False) \<and> actions_shift 1215 = Some (894, False) \<and>
   actions_shift 1217 = Some (4922, False) \<and> actions_shift 1219 = Some (196, False) \<and>
   actions_shift 1221 = Some (5857, False) \<and> actions_shift 1223 = Some (699, False) \<and>
   actions_shift 1225 = Some (5858, False) \<and> actions_shift 1227 = Some (700, False) \<and>
   actions_shift 1229 = Some (5157, False) \<and> actions_shift 1231 = Some (253, False) \<and>
   actions_shift 1233 = Some (5863, False) \<and> actions_shift 1235 = Some (702, False) \<and>
   actions_shift 1237 = Some (4346, False) \<and> actions_shift 1239 = Some (898, False) \<and>
   actions_shift 1241 = Some (4454, False) \<and> actions_shift 1243 = Some (120, False) \<and>
   actions_shift 1245 = Some (4351, False) \<and> actions_shift 1247 = Some (900, False) \<and>
   actions_shift 1249 = Some (4352, False) \<and> actions_shift 1251 = Some (901, False) \<and>
   actions_shift 1253 = Some (4661, False) \<and> actions_shift 1255 = Some (515, False)"
proof -
  have "set parse_actions_3 \<subseteq> set parse_action_rows" by (auto simp: parse_action_rows_def)
  from rows_shifts [OF this] show ?thesis unfolding parse_actions_3_def
    by (simp add: entry_shift_simps del: One_nat_def)
qed

lemma shifts_4:
  "actions_shift 1257 = Some (4357, False) \<and> actions_shift 1259 = Some (903, False) \<and>
   actions_shift 1261 = Some (5868, False) \<and> actions_shift 1263 = Some (703, False) \<and>
   actions_shift 1265 = Some (5449, False) \<and> actions_shift 1267 = Some (82, False) \<and>
   actions_shift 1269 = Some (6006, False) \<and> actions_shift 1271 = Some (99, False) \<and>
   actions_shift 1273 = Some (5874, False) \<and> actions_shift 1275 = Some (705, False) \<and>
   actions_shift 1277 = Some (5173, False) \<and> actions_shift 1279 = Some (258, False) \<and>
   actions_shift 1281 = Some (4942, False) \<and> actions_shift 1283 = Some (201, False) \<and>
   actions_shift 1285 = Some (5878, False) \<and> actions_shift 1287 = Some (707, False) \<and>
   actions_shift 1289 = Some (4692, False) \<and> actions_shift 1291 = Some (520, False) \<and>
   actions_shift 1293 = Some (6314, False) \<and> actions_shift 1295 = Some (416, False) \<and>
   actions_shift 1297 = Some (5486, False) \<and> actions_shift 1299 = Some (329, False) \<and>
   actions_shift 1301 = Some (5890, False) \<and> actions_shift 1303 = Some (712, False) \<and>
   actions_shift 1305 = Some (4696, False) \<and> actions_shift 1307 = Some (522, False) \<and>
   actions_shift 1309 = Some (5117, False) \<and> actions_shift 1311 = Some (56, False) \<and>
   actions_shift 1313 = Some (5897, False) \<and> actions_shift 1315 = Some (714, False) \<and>
   actions_shift 1317 = Some (5494, False) \<and> actions_shift 1319 = Some (331, False) \<and>
   actions_shift 1321 = Some (5497, False) \<and> actions_shift 1323 = Some (332, False) \<and>
   actions_shift 1325 = Some (4714, False) \<and> actions_shift 1327 = Some (527, False) \<and>
   actions_shift 1329 = Some (5909, False) \<and> actions_shift 1331 = Some (719, False) \<and>
   actions_shift 1333 = Some (5182, False) \<and> actions_shift 1335 = Some (260, False) \<and>
   actions_shift 1337 = Some (4387, False) \<and> actions_shift 1339 = Some (909, False) \<and>
   actions_shift 1341 = Some (5505, False) \<and> actions_shift 1343 = Some (334, False) \<and>
   actions_shift 1345 = Some (4686, False) \<and> actions_shift 1347 = Some (122, False) \<and>
   actions_shift 1349 = Some (4962, False) \<and> actions_shift 1351 = Some (206, False) \<and>
   actions_shift 1353 = Some (4736, False) \<and> actions_shift 1355 = Some (536, False) \<and>
   actions_shift 1357 = Some (4737, False) \<and> actions_shift 1359 = Some (537, False) \<and>
   actions_shift 1361 = Some (6351, False) \<and> actions_shift 1363 = Some (421, False) \<and>
   actions_shift 1365 = Some (4742, False) \<and> actions_shift 1367 = Some (539, False) \<and>
   actions_shift 1369 = Some (5035, False) \<and> actions_shift 1371 = Some (123, False) \<and>
   actions_shift 1373 = Some (5513, False) \<and> actions_shift 1375 = Some (336, False) \<and>
   actions_shift 1377 = Some (5944, False) \<and> actions_shift 1379 = Some (726, False) \<and>
   actions_shift 1381 = Some (5948, False) \<and> actions_shift 1383 = Some (727, False) \<and>
   actions_shift 1385 = Some (4748, False) \<and> actions_shift 1387 = Some (540, False) \<and>
   actions_shift 1389 = Some (5960, False) \<and> actions_shift 1391 = Some (729, False) \<and>
   actions_shift 1393 = Some (5516, False) \<and> actions_shift 1395 = Some (337, False) \<and>
   actions_shift 1397 = Some (5204, False) \<and> actions_shift 1399 = Some (265, False) \<and>
   actions_shift 1401 = Some (5966, False) \<and> actions_shift 1403 = Some (730, False) \<and>
   actions_shift 1405 = Some (4760, False) \<and> actions_shift 1407 = Some (542, False) \<and>
   actions_shift 1409 = Some (5524, False) \<and> actions_shift 1411 = Some (339, False) \<and>
   actions_shift 1413 = Some (5976, False) \<and> actions_shift 1415 = Some (732, False) \<and>
   actions_shift 1417 = Some (4419, False) \<and> actions_shift 1419 = Some (916, False) \<and>
   actions_shift 1421 = Some (6381, False) \<and> actions_shift 1423 = Some (425, False) \<and>
   actions_shift 1425 = Some (4767, False) \<and> actions_shift 1427 = Some (544, False) \<and>
   actions_shift 1429 = Some (5986, False) \<and> actions_shift 1431 = Some (734, False) \<and>
   actions_shift 1433 = Some (5269, False) \<and> actions_shift 1435 = Some (65, False) \<and>
   actions_shift 1437 = Some (6393, False) \<and> actions_shift 1439 = Some (427, False) \<and>
   actions_shift 1441 = Some (6399, False) \<and> actions_shift 1443 = Some (428, False) \<and>
   actions_shift 1445 = Some (6002, False) \<and> actions_shift 1447 = Some (739, False) \<and>
   actions_shift 1449 = Some (4608, False) \<and> actions_shift 1451 = Some (125, False) \<and>
   actions_shift 1453 = Some (6419, False) \<and> actions_shift 1455 = Some (430, False) \<and>
   actions_shift 1457 = Some (6011, False) \<and> actions_shift 1459 = Some (741, False) \<and>
   actions_shift 1461 = Some (4816, False) \<and> actions_shift 1463 = Some (551, False) \<and>
   actions_shift 1465 = Some (4817, False) \<and> actions_shift 1467 = Some (552, False) \<and>
   actions_shift 1469 = Some (5532, False) \<and> actions_shift 1471 = Some (340, False) \<and>
   actions_shift 1473 = Some (6027, False) \<and> actions_shift 1475 = Some (746, False) \<and>
   actions_shift 1477 = Some (4826, False) \<and> actions_shift 1479 = Some (554, False) \<and>
   actions_shift 1481 = Some (6076, False) \<and> actions_shift 1483 = Some (100, False) \<and>
   actions_shift 1485 = Some (5462, False) \<and> actions_shift 1487 = Some (83, False) \<and>
   actions_shift 1489 = Some (4856, False) \<and> actions_shift 1491 = Some (559, False) \<and>
   actions_shift 1514 = None \<and> actions_shift 1528 = None \<and>
   actions_shift 1552 = Some (5558, False) \<and> actions_shift 1554 = Some (346, False) \<and>
   actions_shift 1556 = Some (6071, False) \<and> actions_shift 1558 = Some (754, False) \<and>
   actions_shift 1560 = Some (5703, False) \<and> actions_shift 1562 = Some (655, False)"
proof -
  have "set parse_actions_4 \<subseteq> set parse_action_rows" by (auto simp: parse_action_rows_def)
  from rows_shifts [OF this] show ?thesis unfolding parse_actions_4_def
    by (simp add: entry_shift_simps del: One_nat_def)
qed

lemma shifts_5:
  "actions_shift 1602 = Some (4450, False) \<and> actions_shift 1604 = Some (465, False) \<and>
   actions_shift 1694 = Some (4570, False) \<and> actions_shift 1696 = Some (487, False) \<and>
   actions_shift 1698 = Some (4571, False) \<and> actions_shift 1700 = Some (488, False) \<and>
   actions_shift 1702 = Some (4575, False) \<and> actions_shift 1704 = Some (489, False) \<and>
   actions_shift 1722 = Some (4674, False) \<and> actions_shift 1724 = Some (27, False) \<and>
   actions_shift 1782 = Some (4682, False) \<and> actions_shift 1784 = Some (28, False) \<and>
   actions_shift 1806 = Some (4752, False) \<and> actions_shift 1808 = Some (29, False) \<and>
   actions_shift 1822 = Some (5162, False) \<and> actions_shift 1824 = Some (5, False)"
proof -
  have "set parse_actions_5 \<subseteq> set parse_action_rows" by (auto simp: parse_action_rows_def)
  from rows_shifts [OF this] show ?thesis unfolding parse_actions_5_def
    by (simp add: entry_shift_simps del: One_nat_def)
qed

lemmas primary_row_check = entry_follows_simps terminal_symbols nonterminal_symbols
  primary_ids_0 primary_ids_1 primary_ids_2 primary_ids_3 primary_ids_4 primary_ids_5
  primary_ids_6 primary_ids_12 primary_ids_24 primary_ids_26 primary_ids_27 primary_ids_28
  primary_ids_29 primary_ids_30 primary_ids_31 primary_ids_32 primary_ids_33 primary_ids_34
  primary_ids_35 primary_ids_36 primary_ids_37 primary_ids_38 primary_ids_39 primary_ids_40
  primary_ids_41 primary_ids_42 primary_ids_43 primary_ids_44 primary_ids_64 primary_ids_78
  primary_ids_79 primary_ids_81 primary_ids_82 primary_ids_83 primary_ids_84
  shifts_0 shifts_1 shifts_2 shifts_3 shifts_4 shifts_5

end
