(* ===== verification/Mojo_Primary_Row_Proofs.thy ===== *)
theory Mojo_Primary_Row_Proofs
  imports Mojo_Primary_Row_Checks
begin

text \<open>
  The rows of the parse states from 66 to 1277 that are not their own primary states, each compared with
  the row of its primary state.
\<close>

section \<open>Rows\<close>

declare primary_row_check [simp] One_nat_def [simp del]

lemma parse_table_66_follows: "row_follows parse_table_66 parse_table_2"
  by (rule list_follows) (simp add: parse_table_66_def parse_table_2_def)

lemma parse_table_464_follows: "row_follows parse_table_464 parse_table_3"
  by (rule list_follows) (simp add: parse_table_464_def parse_table_3_def)

lemma parse_table_465_follows: "row_follows parse_table_465 parse_table_5"
  by (rule list_follows) (simp add: parse_table_465_def parse_table_5_def)

lemma parse_table_466_follows: "row_follows parse_table_466 parse_table_6"
  by (rule list_follows) (simp add: parse_table_466_def parse_table_6_def)

lemma parse_table_467_follows: "row_follows parse_table_467 parse_table_7"
  by (rule list_follows) (simp add: parse_table_467_def parse_table_7_def)

lemma parse_table_468_follows: "row_follows parse_table_468 parse_table_8"
  by (rule list_follows) (simp add: parse_table_468_def parse_table_8_def)

lemma parse_table_469_follows: "row_follows parse_table_469 parse_table_9"
  by (rule list_follows) (simp add: parse_table_469_def parse_table_9_def)

lemma parse_table_470_follows: "row_follows parse_table_470 parse_table_10"
  by (rule list_follows) (simp add: parse_table_470_def parse_table_10_def)

lemma parse_table_471_follows: "row_follows parse_table_471 parse_table_11"
  by (rule list_follows) (simp add: parse_table_471_def parse_table_11_def)

lemma parse_table_472_follows: "row_follows parse_table_472 parse_table_12"
  by (rule list_follows) (simp add: parse_table_472_def parse_table_12_def)

lemma parse_table_473_follows: "row_follows parse_table_473 parse_table_13"
  by (rule list_follows) (simp add: parse_table_473_def parse_table_13_def)

lemma parse_table_474_follows: "row_follows parse_table_474 parse_table_14"
  by (rule list_follows) (simp add: parse_table_474_def parse_table_14_def)

lemma parse_table_475_follows: "row_follows parse_table_475 parse_table_15"
  by (rule list_follows) (simp add: parse_table_475_def parse_table_15_def)

lemma parse_table_476_follows: "row_follows parse_table_476 parse_table_16"
  by (rule list_follows) (simp add: parse_table_476_def parse_table_16_def)

lemma parse_table_477_follows: "row_follows parse_table_477 parse_table_17"
  by (rule list_follows) (simp add: parse_table_477_def parse_table_17_def)

lemma parse_table_478_follows: "row_follows parse_table_478 parse_table_18"
  by (rule list_follows) (simp add: parse_table_478_def parse_table_18_def)

lemma parse_table_479_follows: "row_follows parse_table_479 parse_table_19"
  by (rule list_follows) (simp add: parse_table_479_def parse_table_19_def)

lemma parse_table_480_follows: "row_follows parse_table_480 parse_table_20"
  by (rule list_follows) (simp add: parse_table_480_def parse_table_20_def)

lemma parse_table_481_follows: "row_follows parse_table_481 parse_table_21"
  by (rule list_follows) (simp add: parse_table_481_def parse_table_21_def)

lemma parse_table_482_follows: "row_follows parse_table_482 parse_table_22"
  by (rule list_follows) (simp add: parse_table_482_def parse_table_22_def)

lemma parse_table_483_follows: "row_follows parse_table_483 parse_table_23"
  by (rule list_follows) (simp add: parse_table_483_def parse_table_23_def)

lemma parse_table_484_follows: "row_follows parse_table_484 parse_table_24"
  by (rule list_follows) (simp add: parse_table_484_def parse_table_24_def)

lemma parse_table_485_follows: "row_follows parse_table_485 parse_table_25"
  by (rule list_follows) (simp add: parse_table_485_def parse_table_25_def)

lemma parse_table_486_follows: "row_follows parse_table_486 parse_table_26"
  by (rule list_follows) (simp add: parse_table_486_def parse_table_26_def)

lemma parse_table_487_follows: "row_follows parse_table_487 parse_table_27"
  by (rule list_follows) (simp add: parse_table_487_def parse_table_27_def)

lemma parse_table_488_follows: "row_follows parse_table_488 parse_table_28"
  by (rule list_follows) (simp add: parse_table_488_def parse_table_28_def)

lemma parse_table_489_follows: "row_follows parse_table_489 parse_table_29"
  by (rule list_follows) (simp add: parse_table_489_def parse_table_29_def)

lemma parse_table_490_follows: "row_follows parse_table_490 parse_table_30"
  by (rule list_follows) (simp add: parse_table_490_def parse_table_30_def)

lemma parse_table_491_follows: "row_follows parse_table_491 parse_table_31"
  by (rule list_follows) (simp add: parse_table_491_def parse_table_31_def)

lemma parse_table_492_follows: "row_follows parse_table_492 parse_table_32"
  by (rule list_follows) (simp add: parse_table_492_def parse_table_32_def)

lemma parse_table_493_follows: "row_follows parse_table_493 parse_table_33"
  by (rule list_follows) (simp add: parse_table_493_def parse_table_33_def)

lemma parse_table_494_follows: "row_follows parse_table_494 parse_table_34"
  by (rule list_follows) (simp add: parse_table_494_def parse_table_34_def)

lemma parse_table_495_follows: "row_follows parse_table_495 parse_table_35"
  by (rule list_follows) (simp add: parse_table_495_def parse_table_35_def)

lemma parse_table_496_follows: "row_follows parse_table_496 parse_table_36"
  by (rule list_follows) (simp add: parse_table_496_def parse_table_36_def)

lemma parse_table_497_follows: "row_follows parse_table_497 parse_table_37"
  by (rule list_follows) (simp add: parse_table_497_def parse_table_37_def)

lemma parse_table_498_follows: "row_follows parse_table_498 parse_table_38"
  by (rule list_follows) (simp add: parse_table_498_def parse_table_38_def)

lemma parse_table_499_follows: "row_follows parse_table_499 parse_table_39"
  by (rule list_follows) (simp add: parse_table_499_def parse_table_39_def)

lemma parse_table_500_follows: "row_follows parse_table_500 parse_table_41"
  by (rule list_follows) (simp add: parse_table_500_def parse_table_41_def)

lemma parse_table_501_follows: "row_follows parse_table_501 parse_table_42"
  by (rule list_follows) (simp add: parse_table_501_def parse_table_42_def)

lemma parse_table_502_follows: "row_follows parse_table_502 parse_table_43"
  by (rule list_follows) (simp add: parse_table_502_def parse_table_43_def)

lemma parse_table_503_follows: "row_follows parse_table_503 parse_table_44"
  by (rule list_follows) (simp add: parse_table_503_def parse_table_44_def)

lemma parse_table_504_follows: "row_follows parse_table_504 parse_table_45"
  by (rule list_follows) (simp add: parse_table_504_def parse_table_45_def)

lemma parse_table_505_follows: "row_follows parse_table_505 parse_table_46"
  by (rule list_follows) (simp add: parse_table_505_def parse_table_46_def)

lemma parse_table_506_follows: "row_follows parse_table_506 parse_table_47"
  by (rule list_follows) (simp add: parse_table_506_def parse_table_47_def)

lemma parse_table_507_follows: "row_follows parse_table_507 parse_table_48"
  by (rule list_follows) (simp add: parse_table_507_def parse_table_48_def)

lemma parse_table_508_follows: "row_follows parse_table_508 parse_table_49"
  by (rule list_follows) (simp add: parse_table_508_def parse_table_49_def)

lemma parse_table_509_follows: "row_follows parse_table_509 parse_table_50"
  by (rule list_follows) (simp add: parse_table_509_def parse_table_50_def)

lemma parse_table_510_follows: "row_follows parse_table_510 parse_table_51"
  by (rule list_follows) (simp add: parse_table_510_def parse_table_51_def)

lemma parse_table_511_follows: "row_follows parse_table_511 parse_table_52"
  by (rule list_follows) (simp add: parse_table_511_def parse_table_52_def)

lemma parse_table_512_follows: "row_follows parse_table_512 parse_table_53"
  by (rule list_follows) (simp add: parse_table_512_def parse_table_53_def)

lemma parse_table_513_follows: "row_follows parse_table_513 parse_table_54"
  by (rule list_follows) (simp add: parse_table_513_def parse_table_54_def)

lemma parse_table_514_follows: "row_follows parse_table_514 parse_table_55"
  by (rule list_follows) (simp add: parse_table_514_def parse_table_55_def)

lemma parse_table_515_follows: "row_follows parse_table_515 parse_table_56"
  by (rule list_follows) (simp add: parse_table_515_def parse_table_56_def)

lemma parse_table_516_follows: "row_follows parse_table_516 parse_table_57"
  by (rule list_follows) (simp add: parse_table_516_def parse_table_57_def)

lemma parse_table_517_follows: "row_follows parse_table_517 parse_table_58"
  by (rule list_follows) (simp add: parse_table_517_def parse_table_58_def)

lemma parse_table_518_follows: "row_follows parse_table_518 parse_table_59"
  by (rule list_follows) (simp add: parse_table_518_def parse_table_59_def)

lemma parse_table_519_follows: "row_follows parse_table_519 parse_table_60"
  by (rule list_follows) (simp add: parse_table_519_def parse_table_60_def)

lemma parse_table_520_follows: "row_follows parse_table_520 parse_table_63"
  by (rule list_follows) (simp add: parse_table_520_def parse_table_63_def)

lemma parse_table_521_follows: "row_follows parse_table_521 parse_table_64"
  by (rule list_follows) (simp add: parse_table_521_def parse_table_64_def)

lemma parse_table_522_follows: "row_follows parse_table_522 parse_table_65"
  by (rule list_follows) (simp add: parse_table_522_def parse_table_65_def)

lemma parse_table_523_follows: "row_follows parse_table_523 parse_table_4"
  by (rule list_follows) (simp add: parse_table_523_def parse_table_4_def)

lemma parse_table_524_follows: "row_follows parse_table_524 parse_table_67"
  by (rule list_follows) (simp add: parse_table_524_def parse_table_67_def)

lemma parse_table_525_follows: "row_follows parse_table_525 parse_table_68"
  by (rule list_follows) (simp add: parse_table_525_def parse_table_68_def)

lemma parse_table_526_follows: "row_follows parse_table_526 parse_table_69"
  by (rule list_follows) (simp add: parse_table_526_def parse_table_69_def)

lemma parse_table_527_follows: "row_follows parse_table_527 parse_table_70"
  by (rule list_follows) (simp add: parse_table_527_def parse_table_70_def)

lemma parse_table_528_follows: "row_follows parse_table_528 parse_table_71"
  by (rule list_follows) (simp add: parse_table_528_def parse_table_71_def)

lemma parse_table_529_follows: "row_follows parse_table_529 parse_table_72"
  by (rule list_follows) (simp add: parse_table_529_def parse_table_72_def)

lemma parse_table_530_follows: "row_follows parse_table_530 parse_table_73"
  by (rule list_follows) (simp add: parse_table_530_def parse_table_73_def)

lemma parse_table_531_follows: "row_follows parse_table_531 parse_table_74"
  by (rule list_follows) (simp add: parse_table_531_def parse_table_74_def)

lemma parse_table_532_follows: "row_follows parse_table_532 parse_table_75"
  by (rule list_follows) (simp add: parse_table_532_def parse_table_75_def)

lemma parse_table_533_follows: "row_follows parse_table_533 parse_table_76"
  by (rule list_follows) (simp add: parse_table_533_def parse_table_76_def)

lemma parse_table_534_follows: "row_follows parse_table_534 parse_table_77"
  by (rule list_follows) (simp add: parse_table_534_def parse_table_77_def)

lemma parse_table_535_follows: "row_follows parse_table_535 parse_table_78"
  by (rule list_follows) (simp add: parse_table_535_def parse_table_78_def)

lemma parse_table_536_follows: "row_follows parse_table_536 parse_table_79"
  by (rule list_follows) (simp add: parse_table_536_def parse_table_79_def)

lemma parse_table_537_follows: "row_follows parse_table_537 parse_table_80"
  by (rule list_follows) (simp add: parse_table_537_def parse_table_80_def)

lemma parse_table_538_follows: "row_follows parse_table_538 parse_table_81"
  by (rule list_follows) (simp add: parse_table_538_def parse_table_81_def)

lemma parse_table_539_follows: "row_follows parse_table_539 parse_table_82"
  by (rule list_follows) (simp add: parse_table_539_def parse_table_82_def)

lemma parse_table_540_follows: "row_follows parse_table_540 parse_table_83"
  by (rule list_follows) (simp add: parse_table_540_def parse_table_83_def)

lemma parse_table_541_follows: "row_follows parse_table_541 parse_table_84"
  by (rule list_follows) (simp add: parse_table_541_def parse_table_84_def)

lemma parse_table_542_follows: "row_follows parse_table_542 parse_table_85"
  by (rule list_follows) (simp add: parse_table_542_def parse_table_85_def)

lemma parse_table_543_follows: "row_follows parse_table_543 parse_table_86"
  by (rule list_follows) (simp add: parse_table_543_def parse_table_86_def)

lemma parse_table_544_follows: "row_follows parse_table_544 parse_table_87"
  by (rule list_follows) (simp add: parse_table_544_def parse_table_87_def)

lemma parse_table_545_follows: "row_follows parse_table_545 parse_table_88"
  by (rule list_follows) (simp add: parse_table_545_def parse_table_88_def)

lemma parse_table_546_follows: "row_follows parse_table_546 parse_table_89"
  by (rule list_follows) (simp add: parse_table_546_def parse_table_89_def)

lemma parse_table_547_follows: "row_follows parse_table_547 parse_table_90"
  by (rule list_follows) (simp add: parse_table_547_def parse_table_90_def)

lemma parse_table_548_follows: "row_follows parse_table_548 parse_table_91"
  by (rule list_follows) (simp add: parse_table_548_def parse_table_91_def)

lemma parse_table_549_follows: "row_follows parse_table_549 parse_table_94"
  by (rule list_follows) (simp add: parse_table_549_def parse_table_94_def)

lemma parse_table_550_follows: "row_follows parse_table_550 parse_table_95"
  by (rule list_follows) (simp add: parse_table_550_def parse_table_95_def)

lemma parse_table_551_follows: "row_follows parse_table_551 parse_table_96"
  by (rule list_follows) (simp add: parse_table_551_def parse_table_96_def)

lemma parse_table_552_follows: "row_follows parse_table_552 parse_table_97"
  by (rule list_follows) (simp add: parse_table_552_def parse_table_97_def)

lemma parse_table_553_follows: "row_follows parse_table_553 parse_table_98"
  by (rule list_follows) (simp add: parse_table_553_def parse_table_98_def)

lemma parse_table_554_follows: "row_follows parse_table_554 parse_table_99"
  by (rule list_follows) (simp add: parse_table_554_def parse_table_99_def)

lemma parse_table_555_follows: "row_follows parse_table_555 parse_table_100"
  by (rule list_follows) (simp add: parse_table_555_def parse_table_100_def)

lemma parse_table_556_follows: "row_follows parse_table_556 parse_table_101"
  by (rule list_follows) (simp add: parse_table_556_def parse_table_101_def)

lemma parse_table_557_follows: "row_follows parse_table_557 parse_table_102"
  by (rule list_follows) (simp add: parse_table_557_def parse_table_102_def)

lemma parse_table_558_follows: "row_follows parse_table_558 parse_table_103"
  by (rule list_follows) (simp add: parse_table_558_def parse_table_103_def)

lemma parse_table_559_follows: "row_follows parse_table_559 parse_table_104"
  by (rule list_follows) (simp add: parse_table_559_def parse_table_104_def)

lemma parse_table_560_follows: "row_follows parse_table_560 parse_table_105"
  by (rule list_follows) (simp add: parse_table_560_def parse_table_105_def)

lemma parse_table_561_follows: "row_follows parse_table_561 parse_table_106"
  by (rule list_follows) (simp add: parse_table_561_def parse_table_106_def)

lemma parse_table_562_follows: "row_follows parse_table_562 parse_table_107"
  by (rule list_follows) (simp add: parse_table_562_def parse_table_107_def)

lemma parse_table_563_follows: "row_follows parse_table_563 parse_table_108"
  by (rule list_follows) (simp add: parse_table_563_def parse_table_108_def)

lemma parse_table_564_follows: "row_follows parse_table_564 parse_table_109"
  by (rule list_follows) (simp add: parse_table_564_def parse_table_109_def)

lemma parse_table_565_follows: "row_follows parse_table_565 parse_table_110"
  by (rule list_follows) (simp add: parse_table_565_def parse_table_110_def)

lemma parse_table_566_follows: "row_follows parse_table_566 parse_table_111"
  by (rule list_follows) (simp add: parse_table_566_def parse_table_111_def)

lemma parse_table_567_follows: "row_follows parse_table_567 parse_table_112"
  by (rule list_follows) (simp add: parse_table_567_def parse_table_112_def)

lemma parse_table_568_follows: "row_follows parse_table_568 parse_table_113"
  by (rule list_follows) (simp add: parse_table_568_def parse_table_113_def)

lemma parse_table_569_follows: "row_follows parse_table_569 parse_table_114"
  by (rule list_follows) (simp add: parse_table_569_def parse_table_114_def)

lemma parse_table_570_follows: "row_follows parse_table_570 parse_table_115"
  by (rule list_follows) (simp add: parse_table_570_def parse_table_115_def)

lemma parse_table_571_follows: "row_follows parse_table_571 parse_table_116"
  by (rule list_follows) (simp add: parse_table_571_def parse_table_116_def)

lemma parse_table_572_follows: "row_follows parse_table_572 parse_table_117"
  by (rule list_follows) (simp add: parse_table_572_def parse_table_117_def)

lemma parse_table_573_follows: "row_follows parse_table_573 parse_table_118"
  by (rule list_follows) (simp add: parse_table_573_def parse_table_118_def)

lemma parse_table_574_follows: "row_follows parse_table_574 parse_table_119"
  by (rule list_follows) (simp add: parse_table_574_def parse_table_119_def)

lemma parse_table_575_follows: "row_follows parse_table_575 parse_table_120"
  by (rule list_follows) (simp add: parse_table_575_def parse_table_120_def)

lemma parse_table_576_follows: "row_follows parse_table_576 parse_table_121"
  by (rule list_follows) (simp add: parse_table_576_def parse_table_121_def)

lemma parse_table_577_follows: "row_follows parse_table_577 parse_table_122"
  by (rule list_follows) (simp add: parse_table_577_def parse_table_122_def)

lemma parse_table_578_follows: "row_follows parse_table_578 parse_table_123"
  by (rule list_follows) (simp add: parse_table_578_def parse_table_123_def)

lemma parse_table_579_follows: "row_follows parse_table_579 parse_table_124"
  by (rule list_follows) (simp add: parse_table_579_def parse_table_124_def)

lemma parse_table_580_follows: "row_follows parse_table_580 parse_table_125"
  by (rule list_follows) (simp add: parse_table_580_def parse_table_125_def)

lemma parse_table_581_follows: "row_follows parse_table_581 parse_table_126"
  by (rule list_follows) (simp add: parse_table_581_def parse_table_126_def)

lemma parse_table_582_follows: "row_follows parse_table_582 parse_table_127"
  by (rule list_follows) (simp add: parse_table_582_def parse_table_127_def)

lemma parse_table_583_follows: "row_follows parse_table_583 parse_table_129"
  by (rule list_follows) (simp add: parse_table_583_def parse_table_129_def)

lemma parse_table_584_follows: "row_follows parse_table_584 parse_table_130"
  by (rule list_follows) (simp add: parse_table_584_def parse_table_130_def)

lemma parse_table_585_follows: "row_follows parse_table_585 parse_table_131"
  by (rule list_follows) (simp add: parse_table_585_def parse_table_131_def)

lemma parse_table_586_follows: "row_follows parse_table_586 parse_table_132"
  by (rule list_follows) (simp add: parse_table_586_def parse_table_132_def)

lemma parse_table_587_follows: "row_follows parse_table_587 parse_table_133"
  by (rule list_follows) (simp add: parse_table_587_def parse_table_133_def)

lemma parse_table_588_follows: "row_follows parse_table_588 parse_table_134"
  by (rule list_follows) (simp add: parse_table_588_def parse_table_134_def)

lemma parse_table_589_follows: "row_follows parse_table_589 parse_table_135"
  by (rule list_follows) (simp add: parse_table_589_def parse_table_135_def)

lemma parse_table_590_follows: "row_follows parse_table_590 parse_table_136"
  by (rule list_follows) (simp add: parse_table_590_def parse_table_136_def)

lemma parse_table_591_follows: "row_follows parse_table_591 parse_table_137"
  by (rule list_follows) (simp add: parse_table_591_def parse_table_137_def)

lemma parse_table_592_follows: "row_follows parse_table_592 parse_table_138"
  by (rule list_follows) (simp add: parse_table_592_def parse_table_138_def)

lemma parse_table_593_follows: "row_follows parse_table_593 parse_table_139"
  by (rule list_follows) (simp add: parse_table_593_def parse_table_139_def)

lemma parse_table_594_follows: "row_follows parse_table_594 parse_table_140"
  by (rule list_follows) (simp add: parse_table_594_def parse_table_140_def)

lemma parse_table_595_follows: "row_follows parse_table_595 parse_table_141"
  by (rule list_follows) (simp add: parse_table_595_def parse_table_141_def)

lemma parse_table_596_follows: "row_follows parse_table_596 parse_table_142"
  by (rule list_follows) (simp add: parse_table_596_def parse_table_142_def)

lemma parse_table_597_follows: "row_follows parse_table_597 parse_table_143"
  by (rule list_follows) (simp add: parse_table_597_def parse_table_143_def)

lemma parse_table_598_follows: "row_follows parse_table_598 parse_table_144"
  by (rule list_follows) (simp add: parse_table_598_def parse_table_144_def)

lemma parse_table_599_follows: "row_follows parse_table_599 parse_table_145"
  by (rule list_follows) (simp add: parse_table_599_def parse_table_145_def)

lemma parse_table_600_follows: "row_follows parse_table_600 parse_table_146"
  by (rule list_follows) (simp add: parse_table_600_def parse_table_146_def)

lemma parse_table_601_follows: "row_follows parse_table_601 parse_table_147"
  by (rule list_follows) (simp add: parse_table_601_def parse_table_147_def)

lemma parse_table_602_follows: "row_follows parse_table_602 parse_table_148"
  by (rule list_follows) (simp add: parse_table_602_def parse_table_148_def)

lemma parse_table_603_follows: "row_follows parse_table_603 parse_table_149"
  by (rule list_follows) (simp add: parse_table_603_def parse_table_149_def)

lemma parse_table_604_follows: "row_follows parse_table_604 parse_table_150"
  by (rule list_follows) (simp add: parse_table_604_def parse_table_150_def)

lemma parse_table_605_follows: "row_follows parse_table_605 parse_table_151"
  by (rule list_follows) (simp add: parse_table_605_def parse_table_151_def)

lemma parse_table_606_follows: "row_follows parse_table_606 parse_table_152"
  by (rule list_follows) (simp add: parse_table_606_def parse_table_152_def)

lemma parse_table_607_follows: "row_follows parse_table_607 parse_table_153"
  by (rule list_follows) (simp add: parse_table_607_def parse_table_153_def)

lemma parse_table_608_follows: "row_follows parse_table_608 parse_table_154"
  by (rule list_follows) (simp add: parse_table_608_def parse_table_154_def)

lemma parse_table_609_follows: "row_follows parse_table_609 parse_table_155"
  by (rule list_follows) (simp add: parse_table_609_def parse_table_155_def)

lemma parse_table_610_follows: "row_follows parse_table_610 parse_table_156"
  by (rule list_follows) (simp add: parse_table_610_def parse_table_156_def)

lemma parse_table_611_follows: "row_follows parse_table_611 parse_table_157"
  by (rule list_follows) (simp add: parse_table_611_def parse_table_157_def)

lemma parse_table_612_follows: "row_follows parse_table_612 parse_table_158"
  by (rule list_follows) (simp add: parse_table_612_def parse_table_158_def)

lemma parse_table_613_follows: "row_follows parse_table_613 parse_table_159"
  by (rule list_follows) (simp add: parse_table_613_def parse_table_159_def)

lemma parse_table_614_follows: "row_follows parse_table_614 parse_table_160"
  by (rule list_follows) (simp add: parse_table_614_def parse_table_160_def)

lemma parse_table_615_follows: "row_follows parse_table_615 parse_table_161"
  by (rule list_follows) (simp add: parse_table_615_def parse_table_161_def)

lemma parse_table_616_follows: "row_follows parse_table_616 parse_table_162"
  by (rule list_follows) (simp add: parse_table_616_def parse_table_162_def)

lemma parse_table_617_follows: "row_follows parse_table_617 parse_table_163"
  by (rule list_follows) (simp add: parse_table_617_def parse_table_163_def)

lemma parse_table_618_follows: "row_follows parse_table_618 parse_table_164"
  by (rule list_follows) (simp add: parse_table_618_def parse_table_164_def)

lemma parse_table_619_follows: "row_follows parse_table_619 parse_table_165"
  by (rule list_follows) (simp add: parse_table_619_def parse_table_165_def)

lemma parse_table_620_follows: "row_follows parse_table_620 parse_table_166"
  by (rule list_follows) (simp add: parse_table_620_def parse_table_166_def)

lemma parse_table_621_follows: "row_follows parse_table_621 parse_table_167"
  by (rule list_follows) (simp add: parse_table_621_def parse_table_167_def)

lemma parse_table_622_follows: "row_follows parse_table_622 parse_table_168"
  by (rule list_follows) (simp add: parse_table_622_def parse_table_168_def)

lemma parse_table_623_follows: "row_follows parse_table_623 parse_table_169"
  by (rule list_follows) (simp add: parse_table_623_def parse_table_169_def)

lemma parse_table_624_follows: "row_follows parse_table_624 parse_table_170"
  by (rule list_follows) (simp add: parse_table_624_def parse_table_170_def)

lemma parse_table_625_follows: "row_follows parse_table_625 parse_table_171"
  by (rule list_follows) (simp add: parse_table_625_def parse_table_171_def)

lemma parse_table_626_follows: "row_follows parse_table_626 parse_table_172"
  by (rule list_follows) (simp add: parse_table_626_def parse_table_172_def)

lemma parse_table_627_follows: "row_follows parse_table_627 parse_table_173"
  by (rule list_follows) (simp add: parse_table_627_def parse_table_173_def)

lemma parse_table_628_follows: "row_follows parse_table_628 parse_table_174"
  by (rule list_follows) (simp add: parse_table_628_def parse_table_174_def)

lemma parse_table_629_follows: "row_follows parse_table_629 parse_table_175"
  by (rule list_follows) (simp add: parse_table_629_def parse_table_175_def)

lemma parse_table_630_follows: "row_follows parse_table_630 parse_table_176"
  by (rule list_follows) (simp add: parse_table_630_def parse_table_176_def)

lemma parse_table_631_follows: "row_follows parse_table_631 parse_table_177"
  by (rule list_follows) (simp add: parse_table_631_def parse_table_177_def)

lemma parse_table_632_follows: "row_follows parse_table_632 parse_table_178"
  by (rule list_follows) (simp add: parse_table_632_def parse_table_178_def)

lemma parse_table_633_follows: "row_follows parse_table_633 parse_table_179"
  by (rule list_follows) (simp add: parse_table_633_def parse_table_179_def)

lemma parse_table_634_follows: "row_follows parse_table_634 parse_table_180"
  by (rule list_follows) (simp add: parse_table_634_def parse_table_180_def)

lemma parse_table_635_follows: "row_follows parse_table_635 parse_table_181"
  by (rule list_follows) (simp add: parse_table_635_def parse_table_181_def)

lemma parse_table_636_follows: "row_follows parse_table_636 parse_table_182"
  by (rule list_follows) (simp add: parse_table_636_def parse_table_182_def)

lemma parse_table_637_follows: "row_follows parse_table_637 parse_table_183"
  by (rule list_follows) (simp add: parse_table_637_def parse_table_183_def)

lemma parse_table_638_follows: "row_follows parse_table_638 parse_table_184"
  by (rule list_follows) (simp add: parse_table_638_def parse_table_184_def)

lemma parse_table_639_follows: "row_follows parse_table_639 parse_table_185"
  by (rule list_follows) (simp add: parse_table_639_def parse_table_185_def)

lemma parse_table_640_follows: "row_follows parse_table_640 parse_table_186"
  by (rule list_follows) (simp add: parse_table_640_def parse_table_186_def)

lemma parse_table_641_follows: "row_follows parse_table_641 parse_table_187"
  by (rule list_follows) (simp add: parse_table_641_def parse_table_187_def)

lemma parse_table_642_follows: "row_follows parse_table_642 parse_table_188"
  by (rule list_follows) (simp add: parse_table_642_def parse_table_188_def)

lemma parse_table_643_follows: "row_follows parse_table_643 parse_table_189"
  by (rule list_follows) (simp add: parse_table_643_def parse_table_189_def)

lemma parse_table_644_follows: "row_follows parse_table_644 parse_table_190"
  by (rule list_follows) (simp add: parse_table_644_def parse_table_190_def)

lemma parse_table_645_follows: "row_follows parse_table_645 parse_table_191"
  by (rule list_follows) (simp add: parse_table_645_def parse_table_191_def)

lemma parse_table_646_follows: "row_follows parse_table_646 parse_table_192"
  by (rule list_follows) (simp add: parse_table_646_def parse_table_192_def)

lemma parse_table_647_follows: "row_follows parse_table_647 parse_table_193"
  by (rule list_follows) (simp add: parse_table_647_def parse_table_193_def)

lemma parse_table_648_follows: "row_follows parse_table_648 parse_table_194"
  by (rule list_follows) (simp add: parse_table_648_def parse_table_194_def)

lemma parse_table_649_follows: "row_follows parse_table_649 parse_table_195"
  by (rule list_follows) (simp add: parse_table_649_def parse_table_195_def)

lemma parse_table_650_follows: "row_follows parse_table_650 parse_table_196"
  by (rule list_follows) (simp add: parse_table_650_def parse_table_196_def)

lemma parse_table_651_follows: "row_follows parse_table_651 parse_table_197"
  by (rule list_follows) (simp add: parse_table_651_def parse_table_197_def)

lemma parse_table_652_follows: "row_follows parse_table_652 parse_table_198"
  by (rule list_follows) (simp add: parse_table_652_def parse_table_198_def)

lemma parse_table_653_follows: "row_follows parse_table_653 parse_table_199"
  by (rule list_follows) (simp add: parse_table_653_def parse_table_199_def)

lemma parse_table_654_follows: "row_follows parse_table_654 parse_table_200"
  by (rule list_follows) (simp add: parse_table_654_def parse_table_200_def)

lemma parse_table_655_follows: "row_follows parse_table_655 parse_table_201"
  by (rule list_follows) (simp add: parse_table_655_def parse_table_201_def)

lemma parse_table_656_follows: "row_follows parse_table_656 parse_table_202"
  by (rule list_follows) (simp add: parse_table_656_def parse_table_202_def)

lemma parse_table_657_follows: "row_follows parse_table_657 parse_table_203"
  by (rule list_follows) (simp add: parse_table_657_def parse_table_203_def)

lemma parse_table_658_follows: "row_follows parse_table_658 parse_table_204"
  by (rule list_follows) (simp add: parse_table_658_def parse_table_204_def)

lemma parse_table_659_follows: "row_follows parse_table_659 parse_table_205"
  by (rule list_follows) (simp add: parse_table_659_def parse_table_205_def)

lemma parse_table_660_follows: "row_follows parse_table_660 parse_table_206"
  by (rule list_follows) (simp add: parse_table_660_def parse_table_206_def)

lemma parse_table_661_follows: "row_follows parse_table_661 parse_table_207"
  by (rule list_follows) (simp add: parse_table_661_def parse_table_207_def)

lemma parse_table_662_follows: "row_follows parse_table_662 parse_table_208"
  by (rule list_follows) (simp add: parse_table_662_def parse_table_208_def)

lemma parse_table_663_follows: "row_follows parse_table_663 parse_table_209"
  by (rule list_follows) (simp add: parse_table_663_def parse_table_209_def)

lemma parse_table_664_follows: "row_follows parse_table_664 parse_table_210"
  by (rule list_follows) (simp add: parse_table_664_def parse_table_210_def)

lemma parse_table_665_follows: "row_follows parse_table_665 parse_table_211"
  by (rule list_follows) (simp add: parse_table_665_def parse_table_211_def)

lemma parse_table_666_follows: "row_follows parse_table_666 parse_table_212"
  by (rule list_follows) (simp add: parse_table_666_def parse_table_212_def)

lemma parse_table_667_follows: "row_follows parse_table_667 parse_table_213"
  by (rule list_follows) (simp add: parse_table_667_def parse_table_213_def)

lemma parse_table_668_follows: "row_follows parse_table_668 parse_table_214"
  by (rule list_follows) (simp add: parse_table_668_def parse_table_214_def)

lemma parse_table_669_follows: "row_follows parse_table_669 parse_table_215"
  by (rule list_follows) (simp add: parse_table_669_def parse_table_215_def)

lemma parse_table_670_follows: "row_follows parse_table_670 parse_table_216"
  by (rule list_follows) (simp add: parse_table_670_def parse_table_216_def)

lemma parse_table_671_follows: "row_follows parse_table_671 parse_table_217"
  by (rule list_follows) (simp add: parse_table_671_def parse_table_217_def)

lemma parse_table_672_follows: "row_follows parse_table_672 parse_table_218"
  by (rule list_follows) (simp add: parse_table_672_def parse_table_218_def)

lemma parse_table_673_follows: "row_follows parse_table_673 parse_table_219"
  by (rule list_follows) (simp add: parse_table_673_def parse_table_219_def)

lemma parse_table_674_follows: "row_follows parse_table_674 parse_table_220"
  by (rule list_follows) (simp add: parse_table_674_def parse_table_220_def)

lemma parse_table_675_follows: "row_follows parse_table_675 parse_table_221"
  by (rule list_follows) (simp add: parse_table_675_def parse_table_221_def)

lemma parse_table_676_follows: "row_follows parse_table_676 parse_table_222"
  by (rule list_follows) (simp add: parse_table_676_def parse_table_222_def)

lemma parse_table_677_follows: "row_follows parse_table_677 parse_table_223"
  by (rule list_follows) (simp add: parse_table_677_def parse_table_223_def)

lemma parse_table_678_follows: "row_follows parse_table_678 parse_table_224"
  by (rule list_follows) (simp add: parse_table_678_def parse_table_224_def)

lemma parse_table_679_follows: "row_follows parse_table_679 parse_table_225"
  by (rule list_follows) (simp add: parse_table_679_def parse_table_225_def)

lemma parse_table_680_follows: "row_follows parse_table_680 parse_table_226"
  by (rule list_follows) (simp add: parse_table_680_def parse_table_226_def)

lemma parse_table_681_follows: "row_follows parse_table_681 parse_table_227"
  by (rule list_follows) (simp add: parse_table_681_def parse_table_227_def)

lemma parse_table_682_follows: "row_follows parse_table_682 parse_table_228"
  by (rule list_follows) (simp add: parse_table_682_def parse_table_228_def)

lemma parse_table_683_follows: "row_follows parse_table_683 parse_table_229"
  by (rule list_follows) (simp add: parse_table_683_def parse_table_229_def)

lemma parse_table_684_follows: "row_follows parse_table_684 parse_table_230"
  by (rule list_follows) (simp add: parse_table_684_def parse_table_230_def)

lemma parse_table_685_follows: "row_follows parse_table_685 parse_table_231"
  by (rule list_follows) (simp add: parse_table_685_def parse_table_231_def)

lemma parse_table_686_follows: "row_follows parse_table_686 parse_table_232"
  by (rule list_follows) (simp add: parse_table_686_def parse_table_232_def)

lemma parse_table_687_follows: "row_follows parse_table_687 parse_table_233"
  by (rule list_follows) (simp add: parse_table_687_def parse_table_233_def)

lemma parse_table_688_follows: "row_follows parse_table_688 parse_table_234"
  by (rule list_follows) (simp add: parse_table_688_def parse_table_234_def)

lemma parse_table_689_follows: "row_follows parse_table_689 parse_table_235"
  by (rule list_follows) (simp add: parse_table_689_def parse_table_235_def)

lemma parse_table_690_follows: "row_follows parse_table_690 parse_table_236"
  by (rule list_follows) (simp add: parse_table_690_def parse_table_236_def)

lemma parse_table_691_follows: "row_follows parse_table_691 parse_table_237"
  by (rule list_follows) (simp add: parse_table_691_def parse_table_237_def)

lemma parse_table_692_follows: "row_follows parse_table_692 parse_table_238"
  by (rule list_follows) (simp add: parse_table_692_def parse_table_238_def)

lemma parse_table_693_follows: "row_follows parse_table_693 parse_table_239"
  by (rule list_follows) (simp add: parse_table_693_def parse_table_239_def)

lemma parse_table_694_follows: "row_follows parse_table_694 parse_table_240"
  by (rule list_follows) (simp add: parse_table_694_def parse_table_240_def)

lemma parse_table_695_follows: "row_follows parse_table_695 parse_table_241"
  by (rule list_follows) (simp add: parse_table_695_def parse_table_241_def)

lemma parse_table_696_follows: "row_follows parse_table_696 parse_table_242"
  by (rule list_follows) (simp add: parse_table_696_def parse_table_242_def)

lemma parse_table_697_follows: "row_follows parse_table_697 parse_table_243"
  by (rule list_follows) (simp add: parse_table_697_def parse_table_243_def)

lemma parse_table_698_follows: "row_follows parse_table_698 parse_table_244"
  by (rule list_follows) (simp add: parse_table_698_def parse_table_244_def)

lemma parse_table_699_follows: "row_follows parse_table_699 parse_table_245"
  by (rule list_follows) (simp add: parse_table_699_def parse_table_245_def)

lemma parse_table_700_follows: "row_follows parse_table_700 parse_table_246"
  by (rule list_follows) (simp add: parse_table_700_def parse_table_246_def)

lemma parse_table_701_follows: "row_follows parse_table_701 parse_table_247"
  by (rule list_follows) (simp add: parse_table_701_def parse_table_247_def)

lemma parse_table_702_follows: "row_follows parse_table_702 parse_table_248"
  by (rule list_follows) (simp add: parse_table_702_def parse_table_248_def)

lemma parse_table_703_follows: "row_follows parse_table_703 parse_table_249"
  by (rule list_follows) (simp add: parse_table_703_def parse_table_249_def)

lemma parse_table_704_follows: "row_follows parse_table_704 parse_table_250"
  by (rule list_follows) (simp add: parse_table_704_def parse_table_250_def)

lemma parse_table_705_follows: "row_follows parse_table_705 parse_table_251"
  by (rule list_follows) (simp add: parse_table_705_def parse_table_251_def)

lemma parse_table_706_follows: "row_follows parse_table_706 parse_table_252"
  by (rule list_follows) (simp add: parse_table_706_def parse_table_252_def)

lemma parse_table_707_follows: "row_follows parse_table_707 parse_table_253"
  by (rule list_follows) (simp add: parse_table_707_def parse_table_253_def)

lemma parse_table_708_follows: "row_follows parse_table_708 parse_table_254"
  by (rule list_follows) (simp add: parse_table_708_def parse_table_254_def)

lemma parse_table_709_follows: "row_follows parse_table_709 parse_table_255"
  by (rule list_follows) (simp add: parse_table_709_def parse_table_255_def)

lemma parse_table_710_follows: "row_follows parse_table_710 parse_table_256"
  by (rule list_follows) (simp add: parse_table_710_def parse_table_256_def)

lemma parse_table_711_follows: "row_follows parse_table_711 parse_table_257"
  by (rule list_follows) (simp add: parse_table_711_def parse_table_257_def)

lemma parse_table_712_follows: "row_follows parse_table_712 parse_table_258"
  by (rule list_follows) (simp add: parse_table_712_def parse_table_258_def)

lemma parse_table_713_follows: "row_follows parse_table_713 parse_table_259"
  by (rule list_follows) (simp add: parse_table_713_def parse_table_259_def)

lemma parse_table_714_follows: "row_follows parse_table_714 parse_table_260"
  by (rule list_follows) (simp add: parse_table_714_def parse_table_260_def)

lemma parse_table_715_follows: "row_follows parse_table_715 parse_table_261"
  by (rule list_follows) (simp add: parse_table_715_def parse_table_261_def)

lemma parse_table_716_follows: "row_follows parse_table_716 parse_table_262"
  by (rule list_follows) (simp add: parse_table_716_def parse_table_262_def)

lemma parse_table_717_follows: "row_follows parse_table_717 parse_table_263"
  by (rule list_follows) (simp add: parse_table_717_def parse_table_263_def)

lemma parse_table_718_follows: "row_follows parse_table_718 parse_table_264"
  by (rule list_follows) (simp add: parse_table_718_def parse_table_264_def)

lemma parse_table_719_follows: "row_follows parse_table_719 parse_table_265"
  by (rule list_follows) (simp add: parse_table_719_def parse_table_265_def)

lemma parse_table_720_follows: "row_follows parse_table_720 parse_table_266"
  by (rule list_follows) (simp add: parse_table_720_def parse_table_266_def)

lemma parse_table_721_follows: "row_follows parse_table_721 parse_table_267"
  by (rule list_follows) (simp add: parse_table_721_def parse_table_267_def)

lemma parse_table_722_follows: "row_follows parse_table_722 parse_table_268"
  by (rule list_follows) (simp add: parse_table_722_def parse_table_268_def)

lemma parse_table_723_follows: "row_follows parse_table_723 parse_table_269"
  by (rule list_follows) (simp add: parse_table_723_def parse_table_269_def)

lemma parse_table_724_follows: "row_follows parse_table_724 parse_table_270"
  by (rule list_follows) (simp add: parse_table_724_def parse_table_270_def)

lemma parse_table_725_follows: "row_follows parse_table_725 parse_table_271"
  by (rule list_follows) (simp add: parse_table_725_def parse_table_271_def)

lemma parse_table_726_follows: "row_follows parse_table_726 parse_table_272"
  by (rule list_follows) (simp add: parse_table_726_def parse_table_272_def)

lemma parse_table_727_follows: "row_follows parse_table_727 parse_table_273"
  by (rule list_follows) (simp add: parse_table_727_def parse_table_273_def)

lemma parse_table_728_follows: "row_follows parse_table_728 parse_table_274"
  by (rule list_follows) (simp add: parse_table_728_def parse_table_274_def)

lemma parse_table_729_follows: "row_follows parse_table_729 parse_table_275"
  by (rule list_follows) (simp add: parse_table_729_def parse_table_275_def)

lemma parse_table_730_follows: "row_follows parse_table_730 parse_table_276"
  by (rule list_follows) (simp add: parse_table_730_def parse_table_276_def)

lemma parse_table_731_follows: "row_follows parse_table_731 parse_table_277"
  by (rule list_follows) (simp add: parse_table_731_def parse_table_277_def)

lemma parse_table_732_follows: "row_follows parse_table_732 parse_table_278"
  by (rule list_follows) (simp add: parse_table_732_def parse_table_278_def)

lemma parse_table_733_follows: "row_follows parse_table_733 parse_table_279"
  by (rule list_follows) (simp add: parse_table_733_def parse_table_279_def)

lemma parse_table_734_follows: "row_follows parse_table_734 parse_table_280"
  by (rule list_follows) (simp add: parse_table_734_def parse_table_280_def)

lemma parse_table_735_follows: "row_follows parse_table_735 parse_table_281"
  by (rule list_follows) (simp add: parse_table_735_def parse_table_281_def)

lemma parse_table_736_follows: "row_follows parse_table_736 parse_table_282"
  by (rule list_follows) (simp add: parse_table_736_def parse_table_282_def)

lemma parse_table_737_follows: "row_follows parse_table_737 parse_table_283"
  by (rule list_follows) (simp add: parse_table_737_def parse_table_283_def)

lemma parse_table_738_follows: "row_follows parse_table_738 parse_table_284"
  by (rule list_follows) (simp add: parse_table_738_def parse_table_284_def)

lemma parse_table_739_follows: "row_follows parse_table_739 parse_table_285"
  by (rule list_follows) (simp add: parse_table_739_def parse_table_285_def)

lemma parse_table_740_follows: "row_follows parse_table_740 parse_table_286"
  by (rule list_follows) (simp add: parse_table_740_def parse_table_286_def)

lemma parse_table_741_follows: "row_follows parse_table_741 parse_table_287"
  by (rule list_follows) (simp add: parse_table_741_def parse_table_287_def)

lemma parse_table_742_follows: "row_follows parse_table_742 parse_table_288"
  by (rule list_follows) (simp add: parse_table_742_def parse_table_288_def)

lemma parse_table_743_follows: "row_follows parse_table_743 parse_table_289"
  by (rule list_follows) (simp add: parse_table_743_def parse_table_289_def)

lemma parse_table_744_follows: "row_follows parse_table_744 parse_table_290"
  by (rule list_follows) (simp add: parse_table_744_def parse_table_290_def)

lemma parse_table_745_follows: "row_follows parse_table_745 parse_table_291"
  by (rule list_follows) (simp add: parse_table_745_def parse_table_291_def)

lemma parse_table_746_follows: "row_follows parse_table_746 parse_table_292"
  by (rule list_follows) (simp add: parse_table_746_def parse_table_292_def)

lemma parse_table_747_follows: "row_follows parse_table_747 parse_table_293"
  by (rule list_follows) (simp add: parse_table_747_def parse_table_293_def)

lemma parse_table_748_follows: "row_follows parse_table_748 parse_table_294"
  by (rule list_follows) (simp add: parse_table_748_def parse_table_294_def)

lemma parse_table_749_follows: "row_follows parse_table_749 parse_table_295"
  by (rule list_follows) (simp add: parse_table_749_def parse_table_295_def)

lemma parse_table_750_follows: "row_follows parse_table_750 parse_table_296"
  by (rule list_follows) (simp add: parse_table_750_def parse_table_296_def)

lemma parse_table_751_follows: "row_follows parse_table_751 parse_table_297"
  by (rule list_follows) (simp add: parse_table_751_def parse_table_297_def)

lemma parse_table_752_follows: "row_follows parse_table_752 parse_table_298"
  by (rule list_follows) (simp add: parse_table_752_def parse_table_298_def)

lemma parse_table_753_follows: "row_follows parse_table_753 parse_table_299"
  by (rule list_follows) (simp add: parse_table_753_def parse_table_299_def)

lemma parse_table_754_follows: "row_follows parse_table_754 parse_table_300"
  by (rule list_follows) (simp add: parse_table_754_def parse_table_300_def)

lemma parse_table_755_follows: "row_follows parse_table_755 parse_table_301"
  by (rule list_follows) (simp add: parse_table_755_def parse_table_301_def)

lemma parse_table_756_follows: "row_follows parse_table_756 parse_table_302"
  by (rule list_follows) (simp add: parse_table_756_def parse_table_302_def)

lemma parse_table_757_follows: "row_follows parse_table_757 parse_table_303"
  by (rule list_follows) (simp add: parse_table_757_def parse_table_303_def)

lemma parse_table_758_follows: "row_follows parse_table_758 parse_table_304"
  by (rule list_follows) (simp add: parse_table_758_def parse_table_304_def)

lemma parse_table_759_follows: "row_follows parse_table_759 parse_table_305"
  by (rule list_follows) (simp add: parse_table_759_def parse_table_305_def)

lemma parse_table_760_follows: "row_follows parse_table_760 parse_table_306"
  by (rule list_follows) (simp add: parse_table_760_def parse_table_306_def)

lemma parse_table_761_follows: "row_follows parse_table_761 parse_table_307"
  by (rule list_follows) (simp add: parse_table_761_def parse_table_307_def)

lemma parse_table_762_follows: "row_follows parse_table_762 parse_table_308"
  by (rule list_follows) (simp add: parse_table_762_def parse_table_308_def)

lemma parse_table_763_follows: "row_follows parse_table_763 parse_table_309"
  by (rule list_follows) (simp add: parse_table_763_def parse_table_309_def)

lemma parse_table_764_follows: "row_follows parse_table_764 parse_table_310"
  by (rule list_follows) (simp add: parse_table_764_def parse_table_310_def)

lemma parse_table_765_follows: "row_follows parse_table_765 parse_table_311"
  by (rule list_follows) (simp add: parse_table_765_def parse_table_311_def)

lemma parse_table_766_follows: "row_follows parse_table_766 parse_table_312"
  by (rule list_follows) (simp add: parse_table_766_def parse_table_312_def)

lemma parse_table_767_follows: "row_follows parse_table_767 parse_table_313"
  by (rule list_follows) (simp add: parse_table_767_def parse_table_313_def)

lemma parse_table_768_follows: "row_follows parse_table_768 parse_table_314"
  by (rule list_follows) (simp add: parse_table_768_def parse_table_314_def)

lemma parse_table_769_follows: "row_follows parse_table_769 parse_table_315"
  by (rule list_follows) (simp add: parse_table_769_def parse_table_315_def)

lemma parse_table_770_follows: "row_follows parse_table_770 parse_table_316"
  by (rule list_follows) (simp add: parse_table_770_def parse_table_316_def)

lemma parse_table_771_follows: "row_follows parse_table_771 parse_table_317"
  by (rule list_follows) (simp add: parse_table_771_def parse_table_317_def)

lemma parse_table_772_follows: "row_follows parse_table_772 parse_table_318"
  by (rule list_follows) (simp add: parse_table_772_def parse_table_318_def)

lemma parse_table_773_follows: "row_follows parse_table_773 parse_table_319"
  by (rule list_follows) (simp add: parse_table_773_def parse_table_319_def)

lemma parse_table_774_follows: "row_follows parse_table_774 parse_table_320"
  by (rule list_follows) (simp add: parse_table_774_def parse_table_320_def)

lemma parse_table_775_follows: "row_follows parse_table_775 parse_table_321"
  by (rule list_follows) (simp add: parse_table_775_def parse_table_321_def)

lemma parse_table_776_follows: "row_follows parse_table_776 parse_table_322"
  by (rule list_follows) (simp add: parse_table_776_def parse_table_322_def)

lemma parse_table_777_follows: "row_follows parse_table_777 parse_table_323"
  by (rule list_follows) (simp add: parse_table_777_def parse_table_323_def)

lemma parse_table_778_follows: "row_follows parse_table_778 parse_table_324"
  by (rule list_follows) (simp add: parse_table_778_def parse_table_324_def)

lemma parse_table_779_follows: "row_follows parse_table_779 parse_table_325"
  by (rule list_follows) (simp add: parse_table_779_def parse_table_325_def)

lemma parse_table_780_follows: "row_follows parse_table_780 parse_table_326"
  by (rule list_follows) (simp add: parse_table_780_def parse_table_326_def)

lemma parse_table_781_follows: "row_follows parse_table_781 parse_table_327"
  by (rule list_follows) (simp add: parse_table_781_def parse_table_327_def)

lemma parse_table_782_follows: "row_follows parse_table_782 parse_table_328"
  by (rule list_follows) (simp add: parse_table_782_def parse_table_328_def)

lemma parse_table_783_follows: "row_follows parse_table_783 parse_table_329"
  by (rule list_follows) (simp add: parse_table_783_def parse_table_329_def)

lemma parse_table_784_follows: "row_follows parse_table_784 parse_table_330"
  by (rule list_follows) (simp add: parse_table_784_def parse_table_330_def)

lemma parse_table_785_follows: "row_follows parse_table_785 parse_table_331"
  by (rule list_follows) (simp add: parse_table_785_def parse_table_331_def)

lemma parse_table_786_follows: "row_follows parse_table_786 parse_table_332"
  by (rule list_follows) (simp add: parse_table_786_def parse_table_332_def)

lemma parse_table_787_follows: "row_follows parse_table_787 parse_table_333"
  by (rule list_follows) (simp add: parse_table_787_def parse_table_333_def)

lemma parse_table_788_follows: "row_follows parse_table_788 parse_table_334"
  by (rule list_follows) (simp add: parse_table_788_def parse_table_334_def)

lemma parse_table_789_follows: "row_follows parse_table_789 parse_table_335"
  by (rule list_follows) (simp add: parse_table_789_def parse_table_335_def)

lemma parse_table_790_follows: "row_follows parse_table_790 parse_table_336"
  by (rule list_follows) (simp add: parse_table_790_def parse_table_336_def)

lemma parse_table_791_follows: "row_follows parse_table_791 parse_table_337"
  by (rule list_follows) (simp add: parse_table_791_def parse_table_337_def)

lemma parse_table_792_follows: "row_follows parse_table_792 parse_table_338"
  by (rule list_follows) (simp add: parse_table_792_def parse_table_338_def)

lemma parse_table_793_follows: "row_follows parse_table_793 parse_table_339"
  by (rule list_follows) (simp add: parse_table_793_def parse_table_339_def)

lemma parse_table_794_follows: "row_follows parse_table_794 parse_table_340"
  by (rule list_follows) (simp add: parse_table_794_def parse_table_340_def)

lemma parse_table_795_follows: "row_follows parse_table_795 parse_table_341"
  by (rule list_follows) (simp add: parse_table_795_def parse_table_341_def)

lemma parse_table_796_follows: "row_follows parse_table_796 parse_table_342"
  by (rule list_follows) (simp add: parse_table_796_def parse_table_342_def)

lemma parse_table_797_follows: "row_follows parse_table_797 parse_table_343"
  by (rule list_follows) (simp add: parse_table_797_def parse_table_343_def)

lemma parse_table_798_follows: "row_follows parse_table_798 parse_table_344"
  by (rule list_follows) (simp add: parse_table_798_def parse_table_344_def)

lemma parse_table_799_follows: "row_follows parse_table_799 parse_table_345"
  by (rule list_follows) (simp add: parse_table_799_def parse_table_345_def)

lemma parse_table_800_follows: "row_follows parse_table_800 parse_table_346"
  by (rule list_follows) (simp add: parse_table_800_def parse_table_346_def)

lemma parse_table_801_follows: "row_follows parse_table_801 parse_table_347"
  by (rule list_follows) (simp add: parse_table_801_def parse_table_347_def)

lemma parse_table_802_follows: "row_follows parse_table_802 parse_table_348"
  by (rule list_follows) (simp add: parse_table_802_def parse_table_348_def)

lemma parse_table_803_follows: "row_follows parse_table_803 parse_table_349"
  by (rule list_follows) (simp add: parse_table_803_def parse_table_349_def)

lemma parse_table_804_follows: "row_follows parse_table_804 parse_table_350"
  by (rule list_follows) (simp add: parse_table_804_def parse_table_350_def)

lemma parse_table_805_follows: "row_follows parse_table_805 parse_table_351"
  by (rule list_follows) (simp add: parse_table_805_def parse_table_351_def)

lemma parse_table_806_follows: "row_follows parse_table_806 parse_table_352"
  by (rule list_follows) (simp add: parse_table_806_def parse_table_352_def)

lemma parse_table_807_follows: "row_follows parse_table_807 parse_table_353"
  by (rule list_follows) (simp add: parse_table_807_def parse_table_353_def)

lemma parse_table_808_follows: "row_follows parse_table_808 parse_table_354"
  by (rule list_follows) (simp add: parse_table_808_def parse_table_354_def)

lemma parse_table_809_follows: "row_follows parse_table_809 parse_table_355"
  by (rule list_follows) (simp add: parse_table_809_def parse_table_355_def)

lemma parse_table_810_follows: "row_follows parse_table_810 parse_table_356"
  by (rule list_follows) (simp add: parse_table_810_def parse_table_356_def)

lemma parse_table_811_follows: "row_follows parse_table_811 parse_table_357"
  by (rule list_follows) (simp add: parse_table_811_def parse_table_357_def)

lemma parse_table_812_follows: "row_follows parse_table_812 parse_table_358"
  by (rule list_follows) (simp add: parse_table_812_def parse_table_358_def)

lemma parse_table_813_follows: "row_follows parse_table_813 parse_table_359"
  by (rule list_follows) (simp add: parse_table_813_def parse_table_359_def)

lemma parse_table_814_follows: "row_follows parse_table_814 parse_table_360"
  by (rule list_follows) (simp add: parse_table_814_def parse_table_360_def)

lemma parse_table_815_follows: "row_follows parse_table_815 parse_table_361"
  by (rule list_follows) (simp add: parse_table_815_def parse_table_361_def)

lemma parse_table_816_follows: "row_follows parse_table_816 parse_table_362"
  by (rule list_follows) (simp add: parse_table_816_def parse_table_362_def)

lemma parse_table_817_follows: "row_follows parse_table_817 parse_table_363"
  by (rule list_follows) (simp add: parse_table_817_def parse_table_363_def)

lemma parse_table_818_follows: "row_follows parse_table_818 parse_table_364"
  by (rule list_follows) (simp add: parse_table_818_def parse_table_364_def)

lemma parse_table_819_follows: "row_follows parse_table_819 parse_table_365"
  by (rule list_follows) (simp add: parse_table_819_def parse_table_365_def)

lemma parse_table_820_follows: "row_follows parse_table_820 parse_table_366"
  by (rule list_follows) (simp add: parse_table_820_def parse_table_366_def)

lemma parse_table_821_follows: "row_follows parse_table_821 parse_table_367"
  by (rule list_follows) (simp add: parse_table_821_def parse_table_367_def)

lemma parse_table_822_follows: "row_follows parse_table_822 parse_table_368"
  by (rule list_follows) (simp add: parse_table_822_def parse_table_368_def)

lemma parse_table_823_follows: "row_follows parse_table_823 parse_table_369"
  by (rule list_follows) (simp add: parse_table_823_def parse_table_369_def)

lemma parse_table_824_follows: "row_follows parse_table_824 parse_table_370"
  by (rule list_follows) (simp add: parse_table_824_def parse_table_370_def)

lemma parse_table_825_follows: "row_follows parse_table_825 parse_table_371"
  by (rule list_follows) (simp add: parse_table_825_def parse_table_371_def)

lemma parse_table_826_follows: "row_follows parse_table_826 parse_table_372"
  by (rule list_follows) (simp add: parse_table_826_def parse_table_372_def)

lemma parse_table_827_follows: "row_follows parse_table_827 parse_table_373"
  by (rule list_follows) (simp add: parse_table_827_def parse_table_373_def)

lemma parse_table_828_follows: "row_follows parse_table_828 parse_table_374"
  by (rule list_follows) (simp add: parse_table_828_def parse_table_374_def)

lemma parse_table_829_follows: "row_follows parse_table_829 parse_table_375"
  by (rule list_follows) (simp add: parse_table_829_def parse_table_375_def)

lemma parse_table_830_follows: "row_follows parse_table_830 parse_table_376"
  by (rule list_follows) (simp add: parse_table_830_def parse_table_376_def)

lemma parse_table_831_follows: "row_follows parse_table_831 parse_table_377"
  by (rule list_follows) (simp add: parse_table_831_def parse_table_377_def)

lemma parse_table_832_follows: "row_follows parse_table_832 parse_table_378"
  by (rule list_follows) (simp add: parse_table_832_def parse_table_378_def)

lemma parse_table_833_follows: "row_follows parse_table_833 parse_table_379"
  by (rule list_follows) (simp add: parse_table_833_def parse_table_379_def)

lemma parse_table_834_follows: "row_follows parse_table_834 parse_table_380"
  by (rule list_follows) (simp add: parse_table_834_def parse_table_380_def)

lemma parse_table_835_follows: "row_follows parse_table_835 parse_table_381"
  by (rule list_follows) (simp add: parse_table_835_def parse_table_381_def)

lemma parse_table_836_follows: "row_follows parse_table_836 parse_table_382"
  by (rule list_follows) (simp add: parse_table_836_def parse_table_382_def)

lemma parse_table_837_follows: "row_follows parse_table_837 parse_table_383"
  by (rule list_follows) (simp add: parse_table_837_def parse_table_383_def)

lemma parse_table_838_follows: "row_follows parse_table_838 parse_table_384"
  by (rule list_follows) (simp add: parse_table_838_def parse_table_384_def)

lemma parse_table_839_follows: "row_follows parse_table_839 parse_table_385"
  by (rule list_follows) (simp add: parse_table_839_def parse_table_385_def)

lemma parse_table_840_follows: "row_follows parse_table_840 parse_table_386"
  by (rule list_follows) (simp add: parse_table_840_def parse_table_386_def)

lemma parse_table_841_follows: "row_follows parse_table_841 parse_table_387"
  by (rule list_follows) (simp add: parse_table_841_def parse_table_387_def)

lemma parse_table_842_follows: "row_follows parse_table_842 parse_table_388"
  by (rule list_follows) (simp add: parse_table_842_def parse_table_388_def)

lemma parse_table_843_follows: "row_follows parse_table_843 parse_table_389"
  by (rule list_follows) (simp add: parse_table_843_def parse_table_389_def)

lemma parse_table_844_follows: "row_follows parse_table_844 parse_table_390"
  by (rule list_follows) (simp add: parse_table_844_def parse_table_390_def)

lemma parse_table_845_follows: "row_follows parse_table_845 parse_table_391"
  by (rule list_follows) (simp add: parse_table_845_def parse_table_391_def)

lemma parse_table_846_follows: "row_follows parse_table_846 parse_table_392"
  by (rule list_follows) (simp add: parse_table_846_def parse_table_392_def)

lemma parse_table_847_follows: "row_follows parse_table_847 parse_table_393"
  by (rule list_follows) (simp add: parse_table_847_def parse_table_393_def)

lemma parse_table_848_follows: "row_follows parse_table_848 parse_table_394"
  by (rule list_follows) (simp add: parse_table_848_def parse_table_394_def)

lemma parse_table_849_follows: "row_follows parse_table_849 parse_table_395"
  by (rule list_follows) (simp add: parse_table_849_def parse_table_395_def)

lemma parse_table_850_follows: "row_follows parse_table_850 parse_table_396"
  by (rule list_follows) (simp add: parse_table_850_def parse_table_396_def)

lemma parse_table_851_follows: "row_follows parse_table_851 parse_table_397"
  by (rule list_follows) (simp add: parse_table_851_def parse_table_397_def)

lemma parse_table_852_follows: "row_follows parse_table_852 parse_table_398"
  by (rule list_follows) (simp add: parse_table_852_def parse_table_398_def)

lemma parse_table_853_follows: "row_follows parse_table_853 parse_table_399"
  by (rule list_follows) (simp add: parse_table_853_def parse_table_399_def)

lemma parse_table_854_follows: "row_follows parse_table_854 parse_table_400"
  by (rule list_follows) (simp add: parse_table_854_def parse_table_400_def)

lemma parse_table_855_follows: "row_follows parse_table_855 parse_table_401"
  by (rule list_follows) (simp add: parse_table_855_def parse_table_401_def)

lemma parse_table_856_follows: "row_follows parse_table_856 parse_table_402"
  by (rule list_follows) (simp add: parse_table_856_def parse_table_402_def)

lemma parse_table_857_follows: "row_follows parse_table_857 parse_table_403"
  by (rule list_follows) (simp add: parse_table_857_def parse_table_403_def)

lemma parse_table_858_follows: "row_follows parse_table_858 parse_table_404"
  by (rule list_follows) (simp add: parse_table_858_def parse_table_404_def)

lemma parse_table_859_follows: "row_follows parse_table_859 parse_table_405"
  by (rule list_follows) (simp add: parse_table_859_def parse_table_405_def)

lemma parse_table_860_follows: "row_follows parse_table_860 parse_table_406"
  by (rule list_follows) (simp add: parse_table_860_def parse_table_406_def)

lemma parse_table_861_follows: "row_follows parse_table_861 parse_table_407"
  by (rule list_follows) (simp add: parse_table_861_def parse_table_407_def)

lemma parse_table_862_follows: "row_follows parse_table_862 parse_table_408"
  by (rule list_follows) (simp add: parse_table_862_def parse_table_408_def)

lemma parse_table_863_follows: "row_follows parse_table_863 parse_table_409"
  by (rule list_follows) (simp add: parse_table_863_def parse_table_409_def)

lemma parse_table_864_follows: "row_follows parse_table_864 parse_table_410"
  by (rule list_follows) (simp add: parse_table_864_def parse_table_410_def)

lemma parse_table_865_follows: "row_follows parse_table_865 parse_table_411"
  by (rule list_follows) (simp add: parse_table_865_def parse_table_411_def)

lemma parse_table_866_follows: "row_follows parse_table_866 parse_table_412"
  by (rule list_follows) (simp add: parse_table_866_def parse_table_412_def)

lemma parse_table_867_follows: "row_follows parse_table_867 parse_table_413"
  by (rule list_follows) (simp add: parse_table_867_def parse_table_413_def)

lemma parse_table_868_follows: "row_follows parse_table_868 parse_table_414"
  by (rule list_follows) (simp add: parse_table_868_def parse_table_414_def)

lemma parse_table_869_follows: "row_follows parse_table_869 parse_table_415"
  by (rule list_follows) (simp add: parse_table_869_def parse_table_415_def)

lemma parse_table_870_follows: "row_follows parse_table_870 parse_table_416"
  by (rule list_follows) (simp add: parse_table_870_def parse_table_416_def)

lemma parse_table_871_follows: "row_follows parse_table_871 parse_table_417"
  by (rule list_follows) (simp add: parse_table_871_def parse_table_417_def)

lemma parse_table_872_follows: "row_follows parse_table_872 parse_table_418"
  by (rule list_follows) (simp add: parse_table_872_def parse_table_418_def)

lemma parse_table_873_follows: "row_follows parse_table_873 parse_table_419"
  by (rule list_follows) (simp add: parse_table_873_def parse_table_419_def)

lemma parse_table_874_follows: "row_follows parse_table_874 parse_table_420"
  by (rule list_follows) (simp add: parse_table_874_def parse_table_420_def)

lemma parse_table_875_follows: "row_follows parse_table_875 parse_table_421"
  by (rule list_follows) (simp add: parse_table_875_def parse_table_421_def)

lemma parse_table_876_follows: "row_follows parse_table_876 parse_table_422"
  by (rule list_follows) (simp add: parse_table_876_def parse_table_422_def)

lemma parse_table_877_follows: "row_follows parse_table_877 parse_table_423"
  by (rule list_follows) (simp add: parse_table_877_def parse_table_423_def)

lemma parse_table_878_follows: "row_follows parse_table_878 parse_table_424"
  by (rule list_follows) (simp add: parse_table_878_def parse_table_424_def)

lemma parse_table_879_follows: "row_follows parse_table_879 parse_table_425"
  by (rule list_follows) (simp add: parse_table_879_def parse_table_425_def)

lemma parse_table_880_follows: "row_follows parse_table_880 parse_table_426"
  by (rule list_follows) (simp add: parse_table_880_def parse_table_426_def)

lemma parse_table_881_follows: "row_follows parse_table_881 parse_table_427"
  by (rule list_follows) (simp add: parse_table_881_def parse_table_427_def)

lemma parse_table_882_follows: "row_follows parse_table_882 parse_table_428"
  by (rule list_follows) (simp add: parse_table_882_def parse_table_428_def)

lemma parse_table_883_follows: "row_follows parse_table_883 parse_table_429"
  by (rule list_follows) (simp add: parse_table_883_def parse_table_429_def)

lemma parse_table_884_follows: "row_follows parse_table_884 parse_table_430"
  by (rule list_follows) (simp add: parse_table_884_def parse_table_430_def)

lemma parse_table_885_follows: "row_follows parse_table_885 parse_table_431"
  by (rule list_follows) (simp add: parse_table_885_def parse_table_431_def)

lemma parse_table_886_follows: "row_follows parse_table_886 parse_table_432"
  by (rule list_follows) (simp add: parse_table_886_def parse_table_432_def)

lemma parse_table_887_follows: "row_follows parse_table_887 parse_table_433"
  by (rule list_follows) (simp add: parse_table_887_def parse_table_433_def)

lemma parse_table_888_follows: "row_follows parse_table_888 parse_table_434"
  by (rule list_follows) (simp add: parse_table_888_def parse_table_434_def)

lemma parse_table_889_follows: "row_follows parse_table_889 parse_table_435"
  by (rule list_follows) (simp add: parse_table_889_def parse_table_435_def)

lemma parse_table_890_follows: "row_follows parse_table_890 parse_table_436"
  by (rule list_follows) (simp add: parse_table_890_def parse_table_436_def)

lemma parse_table_891_follows: "row_follows parse_table_891 parse_table_437"
  by (rule list_follows) (simp add: parse_table_891_def parse_table_437_def)

lemma parse_table_892_follows: "row_follows parse_table_892 parse_table_438"
  by (rule list_follows) (simp add: parse_table_892_def parse_table_438_def)

lemma parse_table_893_follows: "row_follows parse_table_893 parse_table_439"
  by (rule list_follows) (simp add: parse_table_893_def parse_table_439_def)

lemma parse_table_894_follows: "row_follows parse_table_894 parse_table_440"
  by (rule list_follows) (simp add: parse_table_894_def parse_table_440_def)

lemma parse_table_895_follows: "row_follows parse_table_895 parse_table_441"
  by (rule list_follows) (simp add: parse_table_895_def parse_table_441_def)

lemma parse_table_896_follows: "row_follows parse_table_896 parse_table_442"
  by (rule list_follows) (simp add: parse_table_896_def parse_table_442_def)

lemma parse_table_897_follows: "row_follows parse_table_897 parse_table_443"
  by (rule list_follows) (simp add: parse_table_897_def parse_table_443_def)

lemma parse_table_898_follows: "row_follows parse_table_898 parse_table_444"
  by (rule list_follows) (simp add: parse_table_898_def parse_table_444_def)

lemma parse_table_899_follows: "row_follows parse_table_899 parse_table_445"
  by (rule list_follows) (simp add: parse_table_899_def parse_table_445_def)

lemma parse_table_900_follows: "row_follows parse_table_900 parse_table_446"
  by (rule list_follows) (simp add: parse_table_900_def parse_table_446_def)

lemma parse_table_901_follows: "row_follows parse_table_901 parse_table_447"
  by (rule list_follows) (simp add: parse_table_901_def parse_table_447_def)

lemma parse_table_902_follows: "row_follows parse_table_902 parse_table_448"
  by (rule list_follows) (simp add: parse_table_902_def parse_table_448_def)

lemma parse_table_903_follows: "row_follows parse_table_903 parse_table_449"
  by (rule list_follows) (simp add: parse_table_903_def parse_table_449_def)

lemma parse_table_904_follows: "row_follows parse_table_904 parse_table_450"
  by (rule list_follows) (simp add: parse_table_904_def parse_table_450_def)

lemma parse_table_905_follows: "row_follows parse_table_905 parse_table_451"
  by (rule list_follows) (simp add: parse_table_905_def parse_table_451_def)

lemma parse_table_906_follows: "row_follows parse_table_906 parse_table_452"
  by (rule list_follows) (simp add: parse_table_906_def parse_table_452_def)

lemma parse_table_907_follows: "row_follows parse_table_907 parse_table_453"
  by (rule list_follows) (simp add: parse_table_907_def parse_table_453_def)

lemma parse_table_908_follows: "row_follows parse_table_908 parse_table_454"
  by (rule list_follows) (simp add: parse_table_908_def parse_table_454_def)

lemma parse_table_909_follows: "row_follows parse_table_909 parse_table_455"
  by (rule list_follows) (simp add: parse_table_909_def parse_table_455_def)

lemma parse_table_910_follows: "row_follows parse_table_910 parse_table_456"
  by (rule list_follows) (simp add: parse_table_910_def parse_table_456_def)

lemma parse_table_911_follows: "row_follows parse_table_911 parse_table_457"
  by (rule list_follows) (simp add: parse_table_911_def parse_table_457_def)

lemma parse_table_912_follows: "row_follows parse_table_912 parse_table_458"
  by (rule list_follows) (simp add: parse_table_912_def parse_table_458_def)

lemma parse_table_913_follows: "row_follows parse_table_913 parse_table_459"
  by (rule list_follows) (simp add: parse_table_913_def parse_table_459_def)

lemma parse_table_914_follows: "row_follows parse_table_914 parse_table_460"
  by (rule list_follows) (simp add: parse_table_914_def parse_table_460_def)

lemma parse_table_915_follows: "row_follows parse_table_915 parse_table_461"
  by (rule list_follows) (simp add: parse_table_915_def parse_table_461_def)

lemma parse_table_916_follows: "row_follows parse_table_916 parse_table_462"
  by (rule list_follows) (simp add: parse_table_916_def parse_table_462_def)

lemma parse_table_918_follows: "row_follows parse_table_918 parse_table_463"
  by (rule list_follows) (simp add: parse_table_918_def parse_table_463_def)

lemma parse_table_919_follows: "row_follows parse_table_919 parse_table_917"
  by (rule list_follows) (simp add: parse_table_919_def parse_table_917_def)

lemma parse_table_922_follows: "row_follows parse_table_922 parse_table_920"
  by (rule list_follows) (simp add: parse_table_922_def parse_table_920_def)

lemma parse_table_924_follows: "row_follows parse_table_924 parse_table_923"
proof -
  have "list_all2 entry_follows (take 132 parse_table_924 @ drop (Suc 132) parse_table_924)
      (take 76 parse_table_923 @ drop (Suc 76) parse_table_923)"
    by (simp add: parse_table_924_def parse_table_923_def)
  note rest = list_follows [OF this]
  have "row_follows (take 132 parse_table_924 @ drop (Suc 132) parse_table_924) parse_table_923"
    by (rule follows_drop_right [OF rest]) (simp_all add: parse_table_924_def parse_table_923_def symbol_number_defs TOKEN_COUNT_def)
  then show ?thesis
    by (rule follows_drop_left) (simp_all add: parse_table_924_def parse_table_923_def ACTIONS_def)
qed

lemma parse_table_925_follows: "row_follows parse_table_925 parse_table_920"
  by (rule list_follows) (simp add: parse_table_925_def parse_table_920_def)

lemma parse_table_926_follows: "row_follows parse_table_926 parse_table_920"
  by (rule list_follows) (simp add: parse_table_926_def parse_table_920_def)

lemma parse_table_927_follows: "row_follows parse_table_927 parse_table_920"
  by (rule list_follows) (simp add: parse_table_927_def parse_table_920_def)

lemma parse_table_928_follows: "row_follows parse_table_928 parse_table_920"
  by (rule list_follows) (simp add: parse_table_928_def parse_table_920_def)

lemma parse_table_969_follows: "row_follows parse_table_969 parse_table_966"
  by (rule list_follows) (simp add: parse_table_969_def parse_table_966_def)

lemma parse_table_996_follows: "row_follows parse_table_996 parse_table_935"
  by (rule list_follows) (simp add: parse_table_996_def parse_table_935_def)

lemma parse_table_999_follows: "row_follows parse_table_999 parse_table_942"
  by (rule list_follows) (simp add: parse_table_999_def parse_table_942_def)

lemma parse_table_1002_follows: "row_follows parse_table_1002 parse_table_951"
  by (rule list_follows) (simp add: parse_table_1002_def parse_table_951_def)

lemma parse_table_1013_follows: "row_follows parse_table_1013 parse_table_978"
  by (rule list_follows) (simp add: parse_table_1013_def parse_table_978_def)

lemma parse_table_1014_follows: "row_follows parse_table_1014 parse_table_989"
  by (rule list_follows) (simp add: parse_table_1014_def parse_table_989_def)

lemma parse_table_1019_follows: "row_follows parse_table_1019 parse_table_933"
  by (rule list_follows) (simp add: parse_table_1019_def parse_table_933_def)

lemma parse_table_1020_follows: "row_follows parse_table_1020 parse_table_1005"
  by (rule list_follows) (simp add: parse_table_1020_def parse_table_1005_def)

lemma parse_table_1022_follows: "row_follows parse_table_1022 parse_table_1008"
  by (rule list_follows) (simp add: parse_table_1022_def parse_table_1008_def)

lemma parse_table_1023_follows: "row_follows parse_table_1023 parse_table_1009"
  by (rule list_follows) (simp add: parse_table_1023_def parse_table_1009_def)

lemma parse_table_1024_follows: "row_follows parse_table_1024 parse_table_983"
  by (rule list_follows) (simp add: parse_table_1024_def parse_table_983_def)

lemma parse_table_1025_follows: "row_follows parse_table_1025 parse_table_1011"
  by (rule list_follows) (simp add: parse_table_1025_def parse_table_1011_def)

lemma parse_table_1028_follows: "row_follows parse_table_1028 parse_table_984"
  by (rule list_follows) (simp add: parse_table_1028_def parse_table_984_def)

lemma parse_table_1029_follows: "row_follows parse_table_1029 parse_table_946"
  by (rule list_follows) (simp add: parse_table_1029_def parse_table_946_def)

lemma parse_table_1031_follows: "row_follows parse_table_1031 parse_table_1018"
  by (rule list_follows) (simp add: parse_table_1031_def parse_table_1018_def)

lemma parse_table_1032_follows: "row_follows parse_table_1032 parse_table_957"
  by (rule list_follows) (simp add: parse_table_1032_def parse_table_957_def)

lemma parse_table_1033_follows: "row_follows parse_table_1033 parse_table_1026"
  by (rule list_follows) (simp add: parse_table_1033_def parse_table_1026_def)

lemma parse_table_1034_follows: "row_follows parse_table_1034 parse_table_1027"
  by (rule list_follows) (simp add: parse_table_1034_def parse_table_1027_def)

lemma parse_table_1035_follows: "row_follows parse_table_1035 parse_table_965"
  by (rule list_follows) (simp add: parse_table_1035_def parse_table_965_def)

lemma parse_table_1036_follows: "row_follows parse_table_1036 parse_table_1030"
  by (rule list_follows) (simp add: parse_table_1036_def parse_table_1030_def)

lemma parse_table_1038_follows: "row_follows parse_table_1038 parse_table_988"
  by (rule list_follows) (simp add: parse_table_1038_def parse_table_988_def)

lemma parse_table_1039_follows: "row_follows parse_table_1039 parse_table_987"
  by (rule list_follows) (simp add: parse_table_1039_def parse_table_987_def)

lemma parse_table_1042_follows: "row_follows parse_table_1042 parse_table_1004"
  by (rule list_follows) (simp add: parse_table_1042_def parse_table_1004_def)

lemma parse_table_1045_follows: "row_follows parse_table_1045 parse_table_1040"
  by (rule list_follows) (simp add: parse_table_1045_def parse_table_1040_def)

lemma parse_table_1047_follows: "row_follows parse_table_1047 parse_table_1041"
  by (rule list_follows) (simp add: parse_table_1047_def parse_table_1041_def)

lemma parse_table_1049_follows: "row_follows parse_table_1049 parse_table_1043"
  by (rule list_follows) (simp add: parse_table_1049_def parse_table_1043_def)

lemma parse_table_1051_follows: "row_follows parse_table_1051 parse_table_994"
  by (rule list_follows) (simp add: parse_table_1051_def parse_table_994_def)

lemma parse_table_1052_follows: "row_follows parse_table_1052 parse_table_1046"
  by (rule list_follows) (simp add: parse_table_1052_def parse_table_1046_def)

lemma parse_table_1054_follows: "row_follows parse_table_1054 parse_table_995"
  by (rule list_follows) (simp add: parse_table_1054_def parse_table_995_def)

lemma parse_table_1057_follows: "row_follows parse_table_1057 parse_table_1053"
  by (rule list_follows) (simp add: parse_table_1057_def parse_table_1053_def)

lemma parse_table_1060_follows: "row_follows parse_table_1060 parse_table_931"
  by (rule list_follows) (simp add: parse_table_1060_def parse_table_931_def)

lemma parse_table_1061_follows: "row_follows parse_table_1061 parse_table_932"
  by (rule list_follows) (simp add: parse_table_1061_def parse_table_932_def)

lemma parse_table_1063_follows: "row_follows parse_table_1063 parse_table_998"
  by (rule list_follows) (simp add: parse_table_1063_def parse_table_998_def)

lemma parse_table_1068_follows: "row_follows parse_table_1068 parse_table_934"
  by (rule list_follows) (simp add: parse_table_1068_def parse_table_934_def)

lemma parse_table_1071_follows: "row_follows parse_table_1071 parse_table_945"
  by (rule list_follows) (simp add: parse_table_1071_def parse_table_945_def)

lemma parse_table_1074_follows: "row_follows parse_table_1074 parse_table_1056"
  by (rule list_follows) (simp add: parse_table_1074_def parse_table_1056_def)

lemma parse_table_1080_follows: "row_follows parse_table_1080 parse_table_1066"
  by (rule list_follows) (simp add: parse_table_1080_def parse_table_1066_def)

lemma parse_table_1083_follows: "row_follows parse_table_1083 parse_table_930"
  by (rule list_follows) (simp add: parse_table_1083_def parse_table_930_def)

lemma parse_table_1084_follows: "row_follows parse_table_1084 parse_table_938"
  by (rule list_follows) (simp add: parse_table_1084_def parse_table_938_def)

lemma parse_table_1086_follows: "row_follows parse_table_1086 parse_table_939"
  by (rule list_follows) (simp add: parse_table_1086_def parse_table_939_def)

lemma parse_table_1090_follows: "row_follows parse_table_1090 parse_table_1062"
  by (rule list_follows) (simp add: parse_table_1090_def parse_table_1062_def)

lemma parse_table_1091_follows: "row_follows parse_table_1091 parse_table_941"
  by (rule list_follows) (simp add: parse_table_1091_def parse_table_941_def)

lemma parse_table_1093_follows: "row_follows parse_table_1093 parse_table_1064"
  by (rule list_follows) (simp add: parse_table_1093_def parse_table_1064_def)

lemma parse_table_1094_follows: "row_follows parse_table_1094 parse_table_1065"
  by (rule list_follows) (simp add: parse_table_1094_def parse_table_1065_def)

lemma parse_table_1095_follows: "row_follows parse_table_1095 parse_table_1003"
  by (rule list_follows) (simp add: parse_table_1095_def parse_table_1003_def)

lemma parse_table_1096_follows: "row_follows parse_table_1096 parse_table_990"
  by (rule list_follows) (simp add: parse_table_1096_def parse_table_990_def)

lemma parse_table_1097_follows: "row_follows parse_table_1097 parse_table_1067"
  by (rule list_follows) (simp add: parse_table_1097_def parse_table_1067_def)

lemma parse_table_1098_follows: "row_follows parse_table_1098 parse_table_1069"
  by (rule list_follows) (simp add: parse_table_1098_def parse_table_1069_def)

lemma parse_table_1099_follows: "row_follows parse_table_1099 parse_table_944"
  by (rule list_follows) (simp add: parse_table_1099_def parse_table_944_def)

lemma parse_table_1100_follows: "row_follows parse_table_1100 parse_table_991"
  by (rule list_follows) (simp add: parse_table_1100_def parse_table_991_def)

lemma parse_table_1102_follows: "row_follows parse_table_1102 parse_table_1070"
  by (rule list_follows) (simp add: parse_table_1102_def parse_table_1070_def)

lemma parse_table_1105_follows: "row_follows parse_table_1105 parse_table_1073"
  by (rule list_follows) (simp add: parse_table_1105_def parse_table_1073_def)

lemma parse_table_1106_follows: "row_follows parse_table_1106 parse_table_947"
  by (rule list_follows) (simp add: parse_table_1106_def parse_table_947_def)

lemma parse_table_1107_follows: "row_follows parse_table_1107 parse_table_967"
  by (rule list_follows) (simp add: parse_table_1107_def parse_table_967_def)

lemma parse_table_1108_follows: "row_follows parse_table_1108 parse_table_1075"
  by (rule list_follows) (simp add: parse_table_1108_def parse_table_1075_def)

lemma parse_table_1109_follows: "row_follows parse_table_1109 parse_table_974"
  by (rule list_follows) (simp add: parse_table_1109_def parse_table_974_def)

lemma parse_table_1111_follows: "row_follows parse_table_1111 parse_table_1076"
  by (rule list_follows) (simp add: parse_table_1111_def parse_table_1076_def)

lemma parse_table_1112_follows: "row_follows parse_table_1112 parse_table_949"
  by (rule list_follows) (simp add: parse_table_1112_def parse_table_949_def)

lemma parse_table_1113_follows: "row_follows parse_table_1113 parse_table_997"
  by (rule list_follows) (simp add: parse_table_1113_def parse_table_997_def)

lemma parse_table_1114_follows: "row_follows parse_table_1114 parse_table_1078"
  by (rule list_follows) (simp add: parse_table_1114_def parse_table_1078_def)

lemma parse_table_1115_follows: "row_follows parse_table_1115 parse_table_950"
  by (rule list_follows) (simp add: parse_table_1115_def parse_table_950_def)

lemma parse_table_1120_follows: "row_follows parse_table_1120 parse_table_1012"
  by (rule list_follows) (simp add: parse_table_1120_def parse_table_1012_def)

lemma parse_table_1122_follows: "row_follows parse_table_1122 parse_table_952"
  by (rule list_follows) (simp add: parse_table_1122_def parse_table_952_def)

lemma parse_table_1123_follows: "row_follows parse_table_1123 parse_table_1082"
  by (rule list_follows) (simp add: parse_table_1123_def parse_table_1082_def)

lemma parse_table_1124_follows: "row_follows parse_table_1124 parse_table_1017"
  by (rule list_follows) (simp add: parse_table_1124_def parse_table_1017_def)

lemma parse_table_1125_follows: "row_follows parse_table_1125 parse_table_1016"
  by (rule list_follows) (simp add: parse_table_1125_def parse_table_1016_def)

lemma parse_table_1126_follows: "row_follows parse_table_1126 parse_table_929"
  by (rule list_follows) (simp add: parse_table_1126_def parse_table_929_def)

lemma parse_table_1127_follows: "row_follows parse_table_1127 parse_table_1072"
  by (rule list_follows) (simp add: parse_table_1127_def parse_table_1072_def)

lemma parse_table_1128_follows: "row_follows parse_table_1128 parse_table_1085"
  by (rule list_follows) (simp add: parse_table_1128_def parse_table_1085_def)

lemma parse_table_1129_follows: "row_follows parse_table_1129 parse_table_948"
  by (rule list_follows) (simp add: parse_table_1129_def parse_table_948_def)

lemma parse_table_1130_follows: "row_follows parse_table_1130 parse_table_955"
  by (rule list_follows) (simp add: parse_table_1130_def parse_table_955_def)

lemma parse_table_1131_follows: "row_follows parse_table_1131 parse_table_1088"
  by (rule list_follows) (simp add: parse_table_1131_def parse_table_1088_def)

lemma parse_table_1132_follows: "row_follows parse_table_1132 parse_table_1058"
  by (rule list_follows) (simp add: parse_table_1132_def parse_table_1058_def)

lemma parse_table_1134_follows: "row_follows parse_table_1134 parse_table_1077"
  by (rule list_follows) (simp add: parse_table_1134_def parse_table_1077_def)

lemma parse_table_1135_follows: "row_follows parse_table_1135 parse_table_937"
  by (rule list_follows) (simp add: parse_table_1135_def parse_table_937_def)

lemma parse_table_1136_follows: "row_follows parse_table_1136 parse_table_958"
  by (rule list_follows) (simp add: parse_table_1136_def parse_table_958_def)

lemma parse_table_1137_follows: "row_follows parse_table_1137 parse_table_1006"
  by (rule list_follows) (simp add: parse_table_1137_def parse_table_1006_def)

lemma parse_table_1139_follows: "row_follows parse_table_1139 parse_table_1037"
  by (rule list_follows) (simp add: parse_table_1139_def parse_table_1037_def)

lemma parse_table_1140_follows: "row_follows parse_table_1140 parse_table_961"
  by (rule list_follows) (simp add: parse_table_1140_def parse_table_961_def)

lemma parse_table_1141_follows: "row_follows parse_table_1141 parse_table_1087"
  by (rule list_follows) (simp add: parse_table_1141_def parse_table_1087_def)

lemma parse_table_1143_follows: "row_follows parse_table_1143 parse_table_1010"
  by (rule list_follows) (simp add: parse_table_1143_def parse_table_1010_def)

lemma parse_table_1144_follows: "row_follows parse_table_1144 parse_table_962"
  by (rule list_follows) (simp add: parse_table_1144_def parse_table_962_def)

lemma parse_table_1145_follows: "row_follows parse_table_1145 parse_table_1081"
  by (rule list_follows) (simp add: parse_table_1145_def parse_table_1081_def)

lemma parse_table_1146_follows: "row_follows parse_table_1146 parse_table_1103"
  by (rule list_follows) (simp add: parse_table_1146_def parse_table_1103_def)

lemma parse_table_1147_follows: "row_follows parse_table_1147 parse_table_1104"
  by (rule list_follows) (simp add: parse_table_1147_def parse_table_1104_def)

lemma parse_table_1149_follows: "row_follows parse_table_1149 parse_table_1117"
  by (rule list_follows) (simp add: parse_table_1149_def parse_table_1117_def)

lemma parse_table_1150_follows: "row_follows parse_table_1150 parse_table_971"
  by (rule list_follows) (simp add: parse_table_1150_def parse_table_971_def)

lemma parse_table_1151_follows: "row_follows parse_table_1151 parse_table_953"
  by (rule list_follows) (simp add: parse_table_1151_def parse_table_953_def)

lemma parse_table_1152_follows: "row_follows parse_table_1152 parse_table_976"
  by (rule list_follows) (simp add: parse_table_1152_def parse_table_976_def)

lemma parse_table_1153_follows: "row_follows parse_table_1153 parse_table_977"
  by (rule list_follows) (simp add: parse_table_1153_def parse_table_977_def)

lemma parse_table_1155_follows: "row_follows parse_table_1155 parse_table_986"
  by (rule list_follows) (simp add: parse_table_1155_def parse_table_986_def)

lemma parse_table_1156_follows: "row_follows parse_table_1156 parse_table_1133"
  by (rule list_follows) (simp add: parse_table_1156_def parse_table_1133_def)

lemma parse_table_1159_follows: "row_follows parse_table_1159 parse_table_1138"
  by (rule list_follows) (simp add: parse_table_1159_def parse_table_1138_def)

lemma parse_table_1162_follows: "row_follows parse_table_1162 parse_table_1148"
  by (rule list_follows) (simp add: parse_table_1162_def parse_table_1148_def)

lemma parse_table_1163_follows: "row_follows parse_table_1163 parse_table_1044"
  by (rule list_follows) (simp add: parse_table_1163_def parse_table_1044_def)

lemma parse_table_1164_follows: "row_follows parse_table_1164 parse_table_1101"
  by (rule list_follows) (simp add: parse_table_1164_def parse_table_1101_def)

lemma parse_table_1165_follows: "row_follows parse_table_1165 parse_table_970"
  by (rule list_follows) (simp add: parse_table_1165_def parse_table_970_def)

lemma parse_table_1166_follows: "row_follows parse_table_1166 parse_table_1160"
  by (rule list_follows) (simp add: parse_table_1166_def parse_table_1160_def)

lemma parse_table_1168_follows: "row_follows parse_table_1168 parse_table_1154"
  by (rule list_follows) (simp add: parse_table_1168_def parse_table_1154_def)

lemma parse_table_1170_follows: "row_follows parse_table_1170 parse_table_972"
  by (rule list_follows) (simp add: parse_table_1170_def parse_table_972_def)

lemma parse_table_1171_follows: "row_follows parse_table_1171 parse_table_973"
  by (rule list_follows) (simp add: parse_table_1171_def parse_table_973_def)

lemma parse_table_1172_follows: "row_follows parse_table_1172 parse_table_992"
  by (rule list_follows) (simp add: parse_table_1172_def parse_table_992_def)

lemma parse_table_1174_follows: "row_follows parse_table_1174 parse_table_1169"
  by (rule list_follows) (simp add: parse_table_1174_def parse_table_1169_def)

lemma parse_table_1175_follows: "row_follows parse_table_1175 parse_table_1021"
  by (rule list_follows) (simp add: parse_table_1175_def parse_table_1021_def)

lemma parse_table_1176_follows: "row_follows parse_table_1176 parse_table_975"
  by (rule list_follows) (simp add: parse_table_1176_def parse_table_975_def)

lemma parse_table_1177_follows: "row_follows parse_table_1177 parse_table_959"
  by (rule list_follows) (simp add: parse_table_1177_def parse_table_959_def)

lemma parse_table_1178_follows: "row_follows parse_table_1178 parse_table_1092"
  by (rule list_follows) (simp add: parse_table_1178_def parse_table_1092_def)

lemma parse_table_1179_follows: "row_follows parse_table_1179 parse_table_1048"
  by (rule list_follows) (simp add: parse_table_1179_def parse_table_1048_def)

lemma parse_table_1180_follows: "row_follows parse_table_1180 parse_table_1050"
  by (rule list_follows) (simp add: parse_table_1180_def parse_table_1050_def)

lemma parse_table_1181_follows: "row_follows parse_table_1181 parse_table_1110"
  by (rule list_follows) (simp add: parse_table_1181_def parse_table_1110_def)

lemma parse_table_1182_follows: "row_follows parse_table_1182 parse_table_1157"
  by (rule list_follows) (simp add: parse_table_1182_def parse_table_1157_def)

lemma parse_table_1183_follows: "row_follows parse_table_1183 parse_table_960"
  by (rule list_follows) (simp add: parse_table_1183_def parse_table_960_def)

lemma parse_table_1184_follows: "row_follows parse_table_1184 parse_table_979"
  by (rule list_follows) (simp add: parse_table_1184_def parse_table_979_def)

lemma parse_table_1185_follows: "row_follows parse_table_1185 parse_table_940"
  by (rule list_follows) (simp add: parse_table_1185_def parse_table_940_def)

lemma parse_table_1186_follows: "row_follows parse_table_1186 parse_table_943"
  by (rule list_follows) (simp add: parse_table_1186_def parse_table_943_def)

lemma parse_table_1188_follows: "row_follows parse_table_1188 parse_table_954"
  by (rule list_follows) (simp add: parse_table_1188_def parse_table_954_def)

lemma parse_table_1189_follows: "row_follows parse_table_1189 parse_table_980"
  by (rule list_follows) (simp add: parse_table_1189_def parse_table_980_def)

lemma parse_table_1190_follows: "row_follows parse_table_1190 parse_table_1173"
  by (rule list_follows) (simp add: parse_table_1190_def parse_table_1173_def)

lemma parse_table_1191_follows: "row_follows parse_table_1191 parse_table_964"
  by (rule list_follows) (simp add: parse_table_1191_def parse_table_964_def)

lemma parse_table_1192_follows: "row_follows parse_table_1192 parse_table_936"
  by (rule list_follows) (simp add: parse_table_1192_def parse_table_936_def)

lemma parse_table_1193_follows: "row_follows parse_table_1193 parse_table_982"
  by (rule list_follows) (simp add: parse_table_1193_def parse_table_982_def)

lemma parse_table_1194_follows: "row_follows parse_table_1194 parse_table_968"
  by (rule list_follows) (simp add: parse_table_1194_def parse_table_968_def)

lemma parse_table_1195_follows: "row_follows parse_table_1195 parse_table_1059"
  by (rule list_follows) (simp add: parse_table_1195_def parse_table_1059_def)

lemma parse_table_1196_follows: "row_follows parse_table_1196 parse_table_1116"
  by (rule list_follows) (simp add: parse_table_1196_def parse_table_1116_def)

lemma parse_table_1197_follows: "row_follows parse_table_1197 parse_table_1001"
  by (rule list_follows) (simp add: parse_table_1197_def parse_table_1001_def)

lemma parse_table_1198_follows: "row_follows parse_table_1198 parse_table_981"
  by (rule list_follows) (simp add: parse_table_1198_def parse_table_981_def)

lemma parse_table_1199_follows: "row_follows parse_table_1199 parse_table_1167"
  by (rule list_follows) (simp add: parse_table_1199_def parse_table_1167_def)

lemma parse_table_1200_follows: "row_follows parse_table_1200 parse_table_1118"
  by (rule list_follows) (simp add: parse_table_1200_def parse_table_1118_def)

lemma parse_table_1201_follows: "row_follows parse_table_1201 parse_table_1119"
  by (rule list_follows) (simp add: parse_table_1201_def parse_table_1119_def)

lemma parse_table_1202_follows: "row_follows parse_table_1202 parse_table_1000"
  by (rule list_follows) (simp add: parse_table_1202_def parse_table_1000_def)

lemma parse_table_1203_follows: "row_follows parse_table_1203 parse_table_963"
  by (rule list_follows) (simp add: parse_table_1203_def parse_table_963_def)

lemma parse_table_1204_follows: "row_follows parse_table_1204 parse_table_1121"
  by (rule list_follows) (simp add: parse_table_1204_def parse_table_1121_def)

lemma parse_table_1205_follows: "row_follows parse_table_1205 parse_table_1007"
  by (rule list_follows) (simp add: parse_table_1205_def parse_table_1007_def)

lemma parse_table_1206_follows: "row_follows parse_table_1206 parse_table_1079"
  by (rule list_follows) (simp add: parse_table_1206_def parse_table_1079_def)

lemma parse_table_1207_follows: "row_follows parse_table_1207 parse_table_1142"
  by (rule list_follows) (simp add: parse_table_1207_def parse_table_1142_def)

lemma parse_table_1208_follows: "row_follows parse_table_1208 parse_table_985"
  by (rule list_follows) (simp add: parse_table_1208_def parse_table_985_def)

lemma parse_table_1209_follows: "row_follows parse_table_1209 parse_table_1015"
  by (rule list_follows) (simp add: parse_table_1209_def parse_table_1015_def)

lemma parse_table_1210_follows: "row_follows parse_table_1210 parse_table_1158"
  by (rule list_follows) (simp add: parse_table_1210_def parse_table_1158_def)

lemma parse_table_1211_follows: "row_follows parse_table_1211 parse_table_1089"
  by (rule list_follows) (simp add: parse_table_1211_def parse_table_1089_def)

lemma parse_table_1212_follows: "row_follows parse_table_1212 parse_table_1187"
  by (rule list_follows) (simp add: parse_table_1212_def parse_table_1187_def)

lemma parse_table_1213_follows: "row_follows parse_table_1213 parse_table_956"
  by (rule list_follows) (simp add: parse_table_1213_def parse_table_956_def)

lemma parse_table_1215_follows: "row_follows parse_table_1215 parse_table_993"
  by (rule list_follows) (simp add: parse_table_1215_def parse_table_993_def)

lemma parse_table_1216_follows: "row_follows parse_table_1216 parse_table_1055"
  by (rule list_follows) (simp add: parse_table_1216_def parse_table_1055_def)

lemma parse_table_1217_follows: "row_follows parse_table_1217 parse_table_1161"
  by (rule list_follows) (simp add: parse_table_1217_def parse_table_1161_def)

lemma parse_table_1221_follows: "row_follows parse_table_1221 parse_table_1219"
proof -
  have "list_all2 entry_follows (parse_table_1221)
      (take 62 parse_table_1219 @ drop (Suc 62) parse_table_1219)"
    by (simp add: parse_table_1221_def parse_table_1219_def)
  note rest = list_follows [OF this]
  show ?thesis
    by (rule follows_drop_right [OF rest]) (simp_all add: parse_table_1221_def parse_table_1219_def symbol_number_defs TOKEN_COUNT_def)
qed

lemma parse_table_1252_follows: "row_follows parse_table_1252 parse_table_1245"
  by (rule list_follows) (simp add: parse_table_1252_def parse_table_1245_def)

lemma parse_table_1267_follows: "row_follows parse_table_1267 parse_table_1246"
  by (rule list_follows) (simp add: parse_table_1267_def parse_table_1246_def)

lemma parse_table_1273_follows: "row_follows parse_table_1273 parse_table_1247"
  by (rule list_follows) (simp add: parse_table_1273_def parse_table_1247_def)

lemma parse_table_1277_follows: "row_follows parse_table_1277 parse_table_1222"
  by (rule list_follows) (simp add: parse_table_1277_def parse_table_1222_def)

declare primary_row_check [simp del] One_nat_def [simp]

end
