(* ===== verification/Mojo_Primary_Row_Blocks.thy ===== *)
theory Mojo_Primary_Row_Blocks
  imports Mojo_Primary_Row_Proofs
begin

text \<open>
  Every row of the parse table that is modelled, with the row of its primary state.
\<close>

section \<open>Rows at their places\<close>

lemma parse_rows_lengths:
  "length parse_rows_0 = 150"
  "length parse_rows_1 = 150"
  "length parse_rows_2 = 150"
  "length parse_rows_3 = 150"
  "length parse_rows_4 = 150"
  "length parse_rows_5 = 150"
  "length parse_rows_6 = 150"
  "length parse_rows_7 = 150"
  "length parse_rows_8 = 79"
  unfolding parse_rows_0_def parse_rows_1_def parse_rows_2_def parse_rows_3_def parse_rows_4_def parse_rows_5_def parse_rows_6_def parse_rows_7_def parse_rows_8_def
  by simp_all

lemma table_places_0:
  "parse_table_rows ! 0 = parse_table_0 \<and> parse_table_rows ! 1 = parse_table_1 \<and>
   parse_table_rows ! 2 = parse_table_2 \<and> parse_table_rows ! 3 = parse_table_3 \<and>
   parse_table_rows ! 4 = parse_table_4 \<and> parse_table_rows ! 5 = parse_table_5 \<and>
   parse_table_rows ! 6 = parse_table_6 \<and> parse_table_rows ! 7 = parse_table_7 \<and>
   parse_table_rows ! 8 = parse_table_8 \<and> parse_table_rows ! 9 = parse_table_9 \<and>
   parse_table_rows ! 10 = parse_table_10 \<and> parse_table_rows ! 11 = parse_table_11 \<and>
   parse_table_rows ! 12 = parse_table_12 \<and> parse_table_rows ! 13 = parse_table_13 \<and>
   parse_table_rows ! 14 = parse_table_14 \<and> parse_table_rows ! 15 = parse_table_15 \<and>
   parse_table_rows ! 16 = parse_table_16 \<and> parse_table_rows ! 17 = parse_table_17 \<and>
   parse_table_rows ! 18 = parse_table_18 \<and> parse_table_rows ! 19 = parse_table_19 \<and>
   parse_table_rows ! 20 = parse_table_20 \<and> parse_table_rows ! 21 = parse_table_21 \<and>
   parse_table_rows ! 22 = parse_table_22 \<and> parse_table_rows ! 23 = parse_table_23 \<and>
   parse_table_rows ! 24 = parse_table_24 \<and> parse_table_rows ! 25 = parse_table_25 \<and>
   parse_table_rows ! 26 = parse_table_26 \<and> parse_table_rows ! 27 = parse_table_27 \<and>
   parse_table_rows ! 28 = parse_table_28 \<and> parse_table_rows ! 29 = parse_table_29 \<and>
   parse_table_rows ! 30 = parse_table_30 \<and> parse_table_rows ! 31 = parse_table_31 \<and>
   parse_table_rows ! 32 = parse_table_32 \<and> parse_table_rows ! 33 = parse_table_33 \<and>
   parse_table_rows ! 34 = parse_table_34 \<and> parse_table_rows ! 35 = parse_table_35 \<and>
   parse_table_rows ! 36 = parse_table_36 \<and> parse_table_rows ! 37 = parse_table_37 \<and>
   parse_table_rows ! 38 = parse_table_38 \<and> parse_table_rows ! 39 = parse_table_39 \<and>
   parse_table_rows ! 40 = parse_table_40 \<and> parse_table_rows ! 41 = parse_table_41 \<and>
   parse_table_rows ! 42 = parse_table_42 \<and> parse_table_rows ! 43 = parse_table_43 \<and>
   parse_table_rows ! 44 = parse_table_44 \<and> parse_table_rows ! 45 = parse_table_45 \<and>
   parse_table_rows ! 46 = parse_table_46 \<and> parse_table_rows ! 47 = parse_table_47 \<and>
   parse_table_rows ! 48 = parse_table_48 \<and> parse_table_rows ! 49 = parse_table_49 \<and>
   parse_table_rows ! 50 = parse_table_50 \<and> parse_table_rows ! 51 = parse_table_51 \<and>
   parse_table_rows ! 52 = parse_table_52 \<and> parse_table_rows ! 53 = parse_table_53 \<and>
   parse_table_rows ! 54 = parse_table_54 \<and> parse_table_rows ! 55 = parse_table_55 \<and>
   parse_table_rows ! 56 = parse_table_56 \<and> parse_table_rows ! 57 = parse_table_57 \<and>
   parse_table_rows ! 58 = parse_table_58 \<and> parse_table_rows ! 59 = parse_table_59 \<and>
   parse_table_rows ! 60 = parse_table_60 \<and> parse_table_rows ! 61 = parse_table_61 \<and>
   parse_table_rows ! 62 = parse_table_62 \<and> parse_table_rows ! 63 = parse_table_63 \<and>
   parse_table_rows ! 64 = parse_table_64 \<and> parse_table_rows ! 65 = parse_table_65 \<and>
   parse_table_rows ! 67 = parse_table_67 \<and> parse_table_rows ! 68 = parse_table_68 \<and>
   parse_table_rows ! 69 = parse_table_69 \<and> parse_table_rows ! 70 = parse_table_70 \<and>
   parse_table_rows ! 71 = parse_table_71 \<and> parse_table_rows ! 72 = parse_table_72 \<and>
   parse_table_rows ! 73 = parse_table_73 \<and> parse_table_rows ! 74 = parse_table_74 \<and>
   parse_table_rows ! 75 = parse_table_75 \<and> parse_table_rows ! 76 = parse_table_76 \<and>
   parse_table_rows ! 77 = parse_table_77 \<and> parse_table_rows ! 78 = parse_table_78 \<and>
   parse_table_rows ! 79 = parse_table_79 \<and> parse_table_rows ! 80 = parse_table_80 \<and>
   parse_table_rows ! 81 = parse_table_81 \<and> parse_table_rows ! 82 = parse_table_82 \<and>
   parse_table_rows ! 83 = parse_table_83 \<and> parse_table_rows ! 84 = parse_table_84 \<and>
   parse_table_rows ! 85 = parse_table_85 \<and> parse_table_rows ! 86 = parse_table_86 \<and>
   parse_table_rows ! 87 = parse_table_87 \<and> parse_table_rows ! 88 = parse_table_88 \<and>
   parse_table_rows ! 89 = parse_table_89 \<and> parse_table_rows ! 90 = parse_table_90 \<and>
   parse_table_rows ! 91 = parse_table_91 \<and> parse_table_rows ! 92 = parse_table_92 \<and>
   parse_table_rows ! 93 = parse_table_93 \<and> parse_table_rows ! 94 = parse_table_94 \<and>
   parse_table_rows ! 95 = parse_table_95 \<and> parse_table_rows ! 96 = parse_table_96 \<and>
   parse_table_rows ! 97 = parse_table_97 \<and> parse_table_rows ! 98 = parse_table_98 \<and>
   parse_table_rows ! 99 = parse_table_99 \<and> parse_table_rows ! 100 = parse_table_100 \<and>
   parse_table_rows ! 101 = parse_table_101 \<and>
   parse_table_rows ! 102 = parse_table_102 \<and>
   parse_table_rows ! 103 = parse_table_103 \<and>
   parse_table_rows ! 104 = parse_table_104 \<and>
   parse_table_rows ! 105 = parse_table_105 \<and>
   parse_table_rows ! 106 = parse_table_106 \<and>
   parse_table_rows ! 107 = parse_table_107 \<and>
   parse_table_rows ! 108 = parse_table_108 \<and>
   parse_table_rows ! 109 = parse_table_109 \<and>
   parse_table_rows ! 110 = parse_table_110 \<and>
   parse_table_rows ! 111 = parse_table_111 \<and>
   parse_table_rows ! 112 = parse_table_112 \<and>
   parse_table_rows ! 113 = parse_table_113 \<and>
   parse_table_rows ! 114 = parse_table_114 \<and>
   parse_table_rows ! 115 = parse_table_115 \<and>
   parse_table_rows ! 116 = parse_table_116 \<and>
   parse_table_rows ! 117 = parse_table_117 \<and>
   parse_table_rows ! 118 = parse_table_118 \<and>
   parse_table_rows ! 119 = parse_table_119 \<and>
   parse_table_rows ! 120 = parse_table_120 \<and>
   parse_table_rows ! 121 = parse_table_121 \<and>
   parse_table_rows ! 122 = parse_table_122 \<and>
   parse_table_rows ! 123 = parse_table_123 \<and>
   parse_table_rows ! 124 = parse_table_124 \<and>
   parse_table_rows ! 125 = parse_table_125 \<and>
   parse_table_rows ! 126 = parse_table_126 \<and>
   parse_table_rows ! 127 = parse_table_127 \<and>
   parse_table_rows ! 128 = parse_table_128 \<and>
   parse_table_rows ! 129 = parse_table_129 \<and>
   parse_table_rows ! 130 = parse_table_130 \<and>
   parse_table_rows ! 131 = parse_table_131 \<and>
   parse_table_rows ! 132 = parse_table_132 \<and>
   parse_table_rows ! 133 = parse_table_133 \<and>
   parse_table_rows ! 134 = parse_table_134 \<and>
   parse_table_rows ! 135 = parse_table_135 \<and>
   parse_table_rows ! 136 = parse_table_136 \<and>
   parse_table_rows ! 137 = parse_table_137 \<and>
   parse_table_rows ! 138 = parse_table_138 \<and>
   parse_table_rows ! 139 = parse_table_139 \<and>
   parse_table_rows ! 140 = parse_table_140 \<and>
   parse_table_rows ! 141 = parse_table_141 \<and>
   parse_table_rows ! 142 = parse_table_142 \<and>
   parse_table_rows ! 143 = parse_table_143 \<and>
   parse_table_rows ! 144 = parse_table_144 \<and>
   parse_table_rows ! 145 = parse_table_145 \<and>
   parse_table_rows ! 146 = parse_table_146 \<and>
   parse_table_rows ! 147 = parse_table_147 \<and>
   parse_table_rows ! 148 = parse_table_148 \<and> parse_table_rows ! 149 = parse_table_149"
proof -
  have "holds_from (\<lambda>i row. parse_table_rows ! i = row) 0 parse_rows_0"
    using nth_append_places [of "[]" parse_rows_0 "parse_rows_1 @ parse_rows_2 @ parse_rows_3 @ parse_rows_4 @ parse_rows_5 @ parse_rows_6 @ parse_rows_7 @ parse_rows_8"] parse_rows_lengths
    by (simp add: parse_table_rows_def)
  then show ?thesis unfolding parse_rows_0_def by (simp del: One_nat_def)
qed

lemma table_places_1:
  "parse_table_rows ! 150 = parse_table_150 \<and>
   parse_table_rows ! 151 = parse_table_151 \<and>
   parse_table_rows ! 152 = parse_table_152 \<and>
   parse_table_rows ! 153 = parse_table_153 \<and>
   parse_table_rows ! 154 = parse_table_154 \<and>
   parse_table_rows ! 155 = parse_table_155 \<and>
   parse_table_rows ! 156 = parse_table_156 \<and>
   parse_table_rows ! 157 = parse_table_157 \<and>
   parse_table_rows ! 158 = parse_table_158 \<and>
   parse_table_rows ! 159 = parse_table_159 \<and>
   parse_table_rows ! 160 = parse_table_160 \<and>
   parse_table_rows ! 161 = parse_table_161 \<and>
   parse_table_rows ! 162 = parse_table_162 \<and>
   parse_table_rows ! 163 = parse_table_163 \<and>
   parse_table_rows ! 164 = parse_table_164 \<and>
   parse_table_rows ! 165 = parse_table_165 \<and>
   parse_table_rows ! 166 = parse_table_166 \<and>
   parse_table_rows ! 167 = parse_table_167 \<and>
   parse_table_rows ! 168 = parse_table_168 \<and>
   parse_table_rows ! 169 = parse_table_169 \<and>
   parse_table_rows ! 170 = parse_table_170 \<and>
   parse_table_rows ! 171 = parse_table_171 \<and>
   parse_table_rows ! 172 = parse_table_172 \<and>
   parse_table_rows ! 173 = parse_table_173 \<and>
   parse_table_rows ! 174 = parse_table_174 \<and>
   parse_table_rows ! 175 = parse_table_175 \<and>
   parse_table_rows ! 176 = parse_table_176 \<and>
   parse_table_rows ! 177 = parse_table_177 \<and>
   parse_table_rows ! 178 = parse_table_178 \<and>
   parse_table_rows ! 179 = parse_table_179 \<and>
   parse_table_rows ! 180 = parse_table_180 \<and>
   parse_table_rows ! 181 = parse_table_181 \<and>
   parse_table_rows ! 182 = parse_table_182 \<and>
   parse_table_rows ! 183 = parse_table_183 \<and>
   parse_table_rows ! 184 = parse_table_184 \<and>
   parse_table_rows ! 185 = parse_table_185 \<and>
   parse_table_rows ! 186 = parse_table_186 \<and>
   parse_table_rows ! 187 = parse_table_187 \<and>
   parse_table_rows ! 188 = parse_table_188 \<and>
   parse_table_rows ! 189 = parse_table_189 \<and>
   parse_table_rows ! 190 = parse_table_190 \<and>
   parse_table_rows ! 191 = parse_table_191 \<and>
   parse_table_rows ! 192 = parse_table_192 \<and>
   parse_table_rows ! 193 = parse_table_193 \<and>
   parse_table_rows ! 194 = parse_table_194 \<and>
   parse_table_rows ! 195 = parse_table_195 \<and>
   parse_table_rows ! 196 = parse_table_196 \<and>
   parse_table_rows ! 197 = parse_table_197 \<and>
   parse_table_rows ! 198 = parse_table_198 \<and>
   parse_table_rows ! 199 = parse_table_199 \<and>
   parse_table_rows ! 200 = parse_table_200 \<and>
   parse_table_rows ! 201 = parse_table_201 \<and>
   parse_table_rows ! 202 = parse_table_202 \<and>
   parse_table_rows ! 203 = parse_table_203 \<and>
   parse_table_rows ! 204 = parse_table_204 \<and>
   parse_table_rows ! 205 = parse_table_205 \<and>
   parse_table_rows ! 206 = parse_table_206 \<and>
   parse_table_rows ! 207 = parse_table_207 \<and>
   parse_table_rows ! 208 = parse_table_208 \<and>
   parse_table_rows ! 209 = parse_table_209 \<and>
   parse_table_rows ! 210 = parse_table_210 \<and>
   parse_table_rows ! 211 = parse_table_211 \<and>
   parse_table_rows ! 212 = parse_table_212 \<and>
   parse_table_rows ! 213 = parse_table_213 \<and>
   parse_table_rows ! 214 = parse_table_214 \<and>
   parse_table_rows ! 215 = parse_table_215 \<and>
   parse_table_rows ! 216 = parse_table_216 \<and>
   parse_table_rows ! 217 = parse_table_217 \<and>
   parse_table_rows ! 218 = parse_table_218 \<and>
   parse_table_rows ! 219 = parse_table_219 \<and>
   parse_table_rows ! 220 = parse_table_220 \<and>
   parse_table_rows ! 221 = parse_table_221 \<and>
   parse_table_rows ! 222 = parse_table_222 \<and>
   parse_table_rows ! 223 = parse_table_223 \<and>
   parse_table_rows ! 224 = parse_table_224 \<and>
   parse_table_rows ! 225 = parse_table_225 \<and>
   parse_table_rows ! 226 = parse_table_226 \<and>
   parse_table_rows ! 227 = parse_table_227 \<and>
   parse_table_rows ! 228 = parse_table_228 \<and>
   parse_table_rows ! 229 = parse_table_229 \<and>
   parse_table_rows ! 230 = parse_table_230 \<and>
   parse_table_rows ! 231 = parse_table_231 \<and>
   parse_table_rows ! 232 = parse_table_232 \<and>
   parse_table_rows ! 233 = parse_table_233 \<and>
   parse_table_rows ! 234 = parse_table_234 \<and>
   parse_table_rows ! 235 = parse_table_235 \<and>
   parse_table_rows ! 236 = parse_table_236 \<and>
   parse_table_rows ! 237 = parse_table_237 \<and>
   parse_table_rows ! 238 = parse_table_238 \<and>
   parse_table_rows ! 239 = parse_table_239 \<and>
   parse_table_rows ! 240 = parse_table_240 \<and>
   parse_table_rows ! 241 = parse_table_241 \<and>
   parse_table_rows ! 242 = parse_table_242 \<and>
   parse_table_rows ! 243 = parse_table_243 \<and>
   parse_table_rows ! 244 = parse_table_244 \<and>
   parse_table_rows ! 245 = parse_table_245 \<and>
   parse_table_rows ! 246 = parse_table_246 \<and>
   parse_table_rows ! 247 = parse_table_247 \<and>
   parse_table_rows ! 248 = parse_table_248 \<and>
   parse_table_rows ! 249 = parse_table_249 \<and>
   parse_table_rows ! 250 = parse_table_250 \<and>
   parse_table_rows ! 251 = parse_table_251 \<and>
   parse_table_rows ! 252 = parse_table_252 \<and>
   parse_table_rows ! 253 = parse_table_253 \<and>
   parse_table_rows ! 254 = parse_table_254 \<and>
   parse_table_rows ! 255 = parse_table_255 \<and>
   parse_table_rows ! 256 = parse_table_256 \<and>
   parse_table_rows ! 257 = parse_table_257 \<and>
   parse_table_rows ! 258 = parse_table_258 \<and>
   parse_table_rows ! 259 = parse_table_259 \<and>
   parse_table_rows ! 260 = parse_table_260 \<and>
   parse_table_rows ! 261 = parse_table_261 \<and>
   parse_table_rows ! 262 = parse_table_262 \<and>
   parse_table_rows ! 263 = parse_table_263 \<and>
   parse_table_rows ! 264 = parse_table_264 \<and>
   parse_table_rows ! 265 = parse_table_265 \<and>
   parse_table_rows ! 266 = parse_table_266 \<and>
   parse_table_rows ! 267 = parse_table_267 \<and>
   parse_table_rows ! 268 = parse_table_268 \<and>
   parse_table_rows ! 269 = parse_table_269 \<and>
   parse_table_rows ! 270 = parse_table_270 \<and>
   parse_table_rows ! 271 = parse_table_271 \<and>
   parse_table_rows ! 272 = parse_table_272 \<and>
   parse_table_rows ! 273 = parse_table_273 \<and>
   parse_table_rows ! 274 = parse_table_274 \<and>
   parse_table_rows ! 275 = parse_table_275 \<and>
   parse_table_rows ! 276 = parse_table_276 \<and>
   parse_table_rows ! 277 = parse_table_277 \<and>
   parse_table_rows ! 278 = parse_table_278 \<and>
   parse_table_rows ! 279 = parse_table_279 \<and>
   parse_table_rows ! 280 = parse_table_280 \<and>
   parse_table_rows ! 281 = parse_table_281 \<and>
   parse_table_rows ! 282 = parse_table_282 \<and>
   parse_table_rows ! 283 = parse_table_283 \<and>
   parse_table_rows ! 284 = parse_table_284 \<and>
   parse_table_rows ! 285 = parse_table_285 \<and>
   parse_table_rows ! 286 = parse_table_286 \<and>
   parse_table_rows ! 287 = parse_table_287 \<and>
   parse_table_rows ! 288 = parse_table_288 \<and>
   parse_table_rows ! 289 = parse_table_289 \<and>
   parse_table_rows ! 290 = parse_table_290 \<and>
   parse_table_rows ! 291 = parse_table_291 \<and>
   parse_table_rows ! 292 = parse_table_292 \<and>
   parse_table_rows ! 293 = parse_table_293 \<and>
   parse_table_rows ! 294 = parse_table_294 \<and>
   parse_table_rows ! 295 = parse_table_295 \<and>
   parse_table_rows ! 296 = parse_table_296 \<and>
   parse_table_rows ! 297 = parse_table_297 \<and>
   parse_table_rows ! 298 = parse_table_298 \<and> parse_table_rows ! 299 = parse_table_299"
proof -
  have "holds_from (\<lambda>i row. parse_table_rows ! i = row) 150 parse_rows_1"
    using nth_append_places [of "parse_rows_0" parse_rows_1 "parse_rows_2 @ parse_rows_3 @ parse_rows_4 @ parse_rows_5 @ parse_rows_6 @ parse_rows_7 @ parse_rows_8"] parse_rows_lengths
    by (simp add: parse_table_rows_def)
  then show ?thesis unfolding parse_rows_1_def by (simp del: One_nat_def)
qed

lemma table_places_2:
  "parse_table_rows ! 300 = parse_table_300 \<and>
   parse_table_rows ! 301 = parse_table_301 \<and>
   parse_table_rows ! 302 = parse_table_302 \<and>
   parse_table_rows ! 303 = parse_table_303 \<and>
   parse_table_rows ! 304 = parse_table_304 \<and>
   parse_table_rows ! 305 = parse_table_305 \<and>
   parse_table_rows ! 306 = parse_table_306 \<and>
   parse_table_rows ! 307 = parse_table_307 \<and>
   parse_table_rows ! 308 = parse_table_308 \<and>
   parse_table_rows ! 309 = parse_table_309 \<and>
   parse_table_rows ! 310 = parse_table_310 \<and>
   parse_table_rows ! 311 = parse_table_311 \<and>
   parse_table_rows ! 312 = parse_table_312 \<and>
   parse_table_rows ! 313 = parse_table_313 \<and>
   parse_table_rows ! 314 = parse_table_314 \<and>
   parse_table_rows ! 315 = parse_table_315 \<and>
   parse_table_rows ! 316 = parse_table_316 \<and>
   parse_table_rows ! 317 = parse_table_317 \<and>
   parse_table_rows ! 318 = parse_table_318 \<and>
   parse_table_rows ! 319 = parse_table_319 \<and>
   parse_table_rows ! 320 = parse_table_320 \<and>
   parse_table_rows ! 321 = parse_table_321 \<and>
   parse_table_rows ! 322 = parse_table_322 \<and>
   parse_table_rows ! 323 = parse_table_323 \<and>
   parse_table_rows ! 324 = parse_table_324 \<and>
   parse_table_rows ! 325 = parse_table_325 \<and>
   parse_table_rows ! 326 = parse_table_326 \<and>
   parse_table_rows ! 327 = parse_table_327 \<and>
   parse_table_rows ! 328 = parse_table_328 \<and>
   parse_table_rows ! 329 = parse_table_329 \<and>
   parse_table_rows ! 330 = parse_table_330 \<and>
   parse_table_rows ! 331 = parse_table_331 \<and>
   parse_table_rows ! 332 = parse_table_332 \<and>
   parse_table_rows ! 333 = parse_table_333 \<and>
   parse_table_rows ! 334 = parse_table_334 \<and>
   parse_table_rows ! 335 = parse_table_335 \<and>
   parse_table_rows ! 336 = parse_table_336 \<and>
   parse_table_rows ! 337 = parse_table_337 \<and>
   parse_table_rows ! 338 = parse_table_338 \<and>
   parse_table_rows ! 339 = parse_table_339 \<and>
   parse_table_rows ! 340 = parse_table_340 \<and>
   parse_table_rows ! 341 = parse_table_341 \<and>
   parse_table_rows ! 342 = parse_table_342 \<and>
   parse_table_rows ! 343 = parse_table_343 \<and>
   parse_table_rows ! 344 = parse_table_344 \<and>
   parse_table_rows ! 345 = parse_table_345 \<and>
   parse_table_rows ! 346 = parse_table_346 \<and>
   parse_table_rows ! 347 = parse_table_347 \<and>
   parse_table_rows ! 348 = parse_table_348 \<and>
   parse_table_rows ! 349 = parse_table_349 \<and>
   parse_table_rows ! 350 = parse_table_350 \<and>
   parse_table_rows ! 351 = parse_table_351 \<and>
   parse_table_rows ! 352 = parse_table_352 \<and>
   parse_table_rows ! 353 = parse_table_353 \<and>
   parse_table_rows ! 354 = parse_table_354 \<and>
   parse_table_rows ! 355 = parse_table_355 \<and>
   parse_table_rows ! 356 = parse_table_356 \<and>
   parse_table_rows ! 357 = parse_table_357 \<and>
   parse_table_rows ! 358 = parse_table_358 \<and>
   parse_table_rows ! 359 = parse_table_359 \<and>
   parse_table_rows ! 360 = parse_table_360 \<and>
   parse_table_rows ! 361 = parse_table_361 \<and>
   parse_table_rows ! 362 = parse_table_362 \<and>
   parse_table_rows ! 363 = parse_table_363 \<and>
   parse_table_rows ! 364 = parse_table_364 \<and>
   parse_table_rows ! 365 = parse_table_365 \<and>
   parse_table_rows ! 366 = parse_table_366 \<and>
   parse_table_rows ! 367 = parse_table_367 \<and>
   parse_table_rows ! 368 = parse_table_368 \<and>
   parse_table_rows ! 369 = parse_table_369 \<and>
   parse_table_rows ! 370 = parse_table_370 \<and>
   parse_table_rows ! 371 = parse_table_371 \<and>
   parse_table_rows ! 372 = parse_table_372 \<and>
   parse_table_rows ! 373 = parse_table_373 \<and>
   parse_table_rows ! 374 = parse_table_374 \<and>
   parse_table_rows ! 375 = parse_table_375 \<and>
   parse_table_rows ! 376 = parse_table_376 \<and>
   parse_table_rows ! 377 = parse_table_377 \<and>
   parse_table_rows ! 378 = parse_table_378 \<and>
   parse_table_rows ! 379 = parse_table_379 \<and>
   parse_table_rows ! 380 = parse_table_380 \<and>
   parse_table_rows ! 381 = parse_table_381 \<and>
   parse_table_rows ! 382 = parse_table_382 \<and>
   parse_table_rows ! 383 = parse_table_383 \<and>
   parse_table_rows ! 384 = parse_table_384 \<and>
   parse_table_rows ! 385 = parse_table_385 \<and>
   parse_table_rows ! 386 = parse_table_386 \<and>
   parse_table_rows ! 387 = parse_table_387 \<and>
   parse_table_rows ! 388 = parse_table_388 \<and>
   parse_table_rows ! 389 = parse_table_389 \<and>
   parse_table_rows ! 390 = parse_table_390 \<and>
   parse_table_rows ! 391 = parse_table_391 \<and>
   parse_table_rows ! 392 = parse_table_392 \<and>
   parse_table_rows ! 393 = parse_table_393 \<and>
   parse_table_rows ! 394 = parse_table_394 \<and>
   parse_table_rows ! 395 = parse_table_395 \<and>
   parse_table_rows ! 396 = parse_table_396 \<and>
   parse_table_rows ! 397 = parse_table_397 \<and>
   parse_table_rows ! 398 = parse_table_398 \<and>
   parse_table_rows ! 399 = parse_table_399 \<and>
   parse_table_rows ! 400 = parse_table_400 \<and>
   parse_table_rows ! 401 = parse_table_401 \<and>
   parse_table_rows ! 402 = parse_table_402 \<and>
   parse_table_rows ! 403 = parse_table_403 \<and>
   parse_table_rows ! 404 = parse_table_404 \<and>
   parse_table_rows ! 405 = parse_table_405 \<and>
   parse_table_rows ! 406 = parse_table_406 \<and>
   parse_table_rows ! 407 = parse_table_407 \<and>
   parse_table_rows ! 408 = parse_table_408 \<and>
   parse_table_rows ! 409 = parse_table_409 \<and>
   parse_table_rows ! 410 = parse_table_410 \<and>
   parse_table_rows ! 411 = parse_table_411 \<and>
   parse_table_rows ! 412 = parse_table_412 \<and>
   parse_table_rows ! 413 = parse_table_413 \<and>
   parse_table_rows ! 414 = parse_table_414 \<and>
   parse_table_rows ! 415 = parse_table_415 \<and>
   parse_table_rows ! 416 = parse_table_416 \<and>
   parse_table_rows ! 417 = parse_table_417 \<and>
   parse_table_rows ! 418 = parse_table_418 \<and>
   parse_table_rows ! 419 = parse_table_419 \<and>
   parse_table_rows ! 420 = parse_table_420 \<and>
   parse_table_rows ! 421 = parse_table_421 \<and>
   parse_table_rows ! 422 = parse_table_422 \<and>
   parse_table_rows ! 423 = parse_table_423 \<and>
   parse_table_rows ! 424 = parse_table_424 \<and>
   parse_table_rows ! 425 = parse_table_425 \<and>
   parse_table_rows ! 426 = parse_table_426 \<and>
   parse_table_rows ! 427 = parse_table_427 \<and>
   parse_table_rows ! 428 = parse_table_428 \<and>
   parse_table_rows ! 429 = parse_table_429 \<and>
   parse_table_rows ! 430 = parse_table_430 \<and>
   parse_table_rows ! 431 = parse_table_431 \<and>
   parse_table_rows ! 432 = parse_table_432 \<and>
   parse_table_rows ! 433 = parse_table_433 \<and>
   parse_table_rows ! 434 = parse_table_434 \<and>
   parse_table_rows ! 435 = parse_table_435 \<and>
   parse_table_rows ! 436 = parse_table_436 \<and>
   parse_table_rows ! 437 = parse_table_437 \<and>
   parse_table_rows ! 438 = parse_table_438 \<and>
   parse_table_rows ! 439 = parse_table_439 \<and>
   parse_table_rows ! 440 = parse_table_440 \<and>
   parse_table_rows ! 441 = parse_table_441 \<and>
   parse_table_rows ! 442 = parse_table_442 \<and>
   parse_table_rows ! 443 = parse_table_443 \<and>
   parse_table_rows ! 444 = parse_table_444 \<and>
   parse_table_rows ! 445 = parse_table_445 \<and>
   parse_table_rows ! 446 = parse_table_446 \<and>
   parse_table_rows ! 447 = parse_table_447 \<and>
   parse_table_rows ! 448 = parse_table_448 \<and> parse_table_rows ! 449 = parse_table_449"
proof -
  have "holds_from (\<lambda>i row. parse_table_rows ! i = row) 300 parse_rows_2"
    using nth_append_places [of "parse_rows_0 @ parse_rows_1" parse_rows_2 "parse_rows_3 @ parse_rows_4 @ parse_rows_5 @ parse_rows_6 @ parse_rows_7 @ parse_rows_8"] parse_rows_lengths
    by (simp add: parse_table_rows_def)
  then show ?thesis unfolding parse_rows_2_def by (simp del: One_nat_def)
qed

lemma table_places_3:
  "parse_table_rows ! 450 = parse_table_450 \<and>
   parse_table_rows ! 451 = parse_table_451 \<and>
   parse_table_rows ! 452 = parse_table_452 \<and>
   parse_table_rows ! 453 = parse_table_453 \<and>
   parse_table_rows ! 454 = parse_table_454 \<and>
   parse_table_rows ! 455 = parse_table_455 \<and>
   parse_table_rows ! 456 = parse_table_456 \<and>
   parse_table_rows ! 457 = parse_table_457 \<and>
   parse_table_rows ! 458 = parse_table_458 \<and>
   parse_table_rows ! 459 = parse_table_459 \<and>
   parse_table_rows ! 460 = parse_table_460 \<and>
   parse_table_rows ! 461 = parse_table_461 \<and>
   parse_table_rows ! 462 = parse_table_462 \<and> parse_table_rows ! 463 = parse_table_463"
proof -
  have "holds_from (\<lambda>i row. parse_table_rows ! i = row) 450 parse_rows_3"
    using nth_append_places [of "parse_rows_0 @ parse_rows_1 @ parse_rows_2" parse_rows_3 "parse_rows_4 @ parse_rows_5 @ parse_rows_6 @ parse_rows_7 @ parse_rows_8"] parse_rows_lengths
    by (simp add: parse_table_rows_def)
  then show ?thesis unfolding parse_rows_3_def by (simp del: One_nat_def)
qed

lemma table_places_6:
  "parse_table_rows ! 917 = parse_table_917 \<and>
   parse_table_rows ! 920 = parse_table_920 \<and>
   parse_table_rows ! 921 = parse_table_921 \<and>
   parse_table_rows ! 923 = parse_table_923 \<and>
   parse_table_rows ! 929 = parse_table_929 \<and>
   parse_table_rows ! 930 = parse_table_930 \<and>
   parse_table_rows ! 931 = parse_table_931 \<and>
   parse_table_rows ! 932 = parse_table_932 \<and>
   parse_table_rows ! 933 = parse_table_933 \<and>
   parse_table_rows ! 934 = parse_table_934 \<and>
   parse_table_rows ! 935 = parse_table_935 \<and>
   parse_table_rows ! 936 = parse_table_936 \<and>
   parse_table_rows ! 937 = parse_table_937 \<and>
   parse_table_rows ! 938 = parse_table_938 \<and>
   parse_table_rows ! 939 = parse_table_939 \<and>
   parse_table_rows ! 940 = parse_table_940 \<and>
   parse_table_rows ! 941 = parse_table_941 \<and>
   parse_table_rows ! 942 = parse_table_942 \<and>
   parse_table_rows ! 943 = parse_table_943 \<and>
   parse_table_rows ! 944 = parse_table_944 \<and>
   parse_table_rows ! 945 = parse_table_945 \<and>
   parse_table_rows ! 946 = parse_table_946 \<and>
   parse_table_rows ! 947 = parse_table_947 \<and>
   parse_table_rows ! 948 = parse_table_948 \<and>
   parse_table_rows ! 949 = parse_table_949 \<and>
   parse_table_rows ! 950 = parse_table_950 \<and>
   parse_table_rows ! 951 = parse_table_951 \<and>
   parse_table_rows ! 952 = parse_table_952 \<and>
   parse_table_rows ! 953 = parse_table_953 \<and>
   parse_table_rows ! 954 = parse_table_954 \<and>
   parse_table_rows ! 955 = parse_table_955 \<and>
   parse_table_rows ! 956 = parse_table_956 \<and>
   parse_table_rows ! 957 = parse_table_957 \<and>
   parse_table_rows ! 958 = parse_table_958 \<and>
   parse_table_rows ! 959 = parse_table_959 \<and>
   parse_table_rows ! 960 = parse_table_960 \<and>
   parse_table_rows ! 961 = parse_table_961 \<and>
   parse_table_rows ! 962 = parse_table_962 \<and>
   parse_table_rows ! 963 = parse_table_963 \<and>
   parse_table_rows ! 964 = parse_table_964 \<and>
   parse_table_rows ! 965 = parse_table_965 \<and>
   parse_table_rows ! 966 = parse_table_966 \<and>
   parse_table_rows ! 967 = parse_table_967 \<and>
   parse_table_rows ! 968 = parse_table_968 \<and>
   parse_table_rows ! 970 = parse_table_970 \<and>
   parse_table_rows ! 971 = parse_table_971 \<and>
   parse_table_rows ! 972 = parse_table_972 \<and>
   parse_table_rows ! 973 = parse_table_973 \<and>
   parse_table_rows ! 974 = parse_table_974 \<and>
   parse_table_rows ! 975 = parse_table_975 \<and>
   parse_table_rows ! 976 = parse_table_976 \<and>
   parse_table_rows ! 977 = parse_table_977 \<and>
   parse_table_rows ! 978 = parse_table_978 \<and>
   parse_table_rows ! 979 = parse_table_979 \<and>
   parse_table_rows ! 980 = parse_table_980 \<and>
   parse_table_rows ! 981 = parse_table_981 \<and>
   parse_table_rows ! 982 = parse_table_982 \<and>
   parse_table_rows ! 983 = parse_table_983 \<and>
   parse_table_rows ! 984 = parse_table_984 \<and>
   parse_table_rows ! 985 = parse_table_985 \<and>
   parse_table_rows ! 986 = parse_table_986 \<and>
   parse_table_rows ! 987 = parse_table_987 \<and>
   parse_table_rows ! 988 = parse_table_988 \<and>
   parse_table_rows ! 989 = parse_table_989 \<and>
   parse_table_rows ! 990 = parse_table_990 \<and>
   parse_table_rows ! 991 = parse_table_991 \<and>
   parse_table_rows ! 992 = parse_table_992 \<and>
   parse_table_rows ! 993 = parse_table_993 \<and>
   parse_table_rows ! 994 = parse_table_994 \<and>
   parse_table_rows ! 995 = parse_table_995 \<and>
   parse_table_rows ! 997 = parse_table_997 \<and>
   parse_table_rows ! 998 = parse_table_998 \<and>
   parse_table_rows ! 1000 = parse_table_1000 \<and>
   parse_table_rows ! 1001 = parse_table_1001 \<and>
   parse_table_rows ! 1003 = parse_table_1003 \<and>
   parse_table_rows ! 1004 = parse_table_1004 \<and>
   parse_table_rows ! 1005 = parse_table_1005 \<and>
   parse_table_rows ! 1006 = parse_table_1006 \<and>
   parse_table_rows ! 1007 = parse_table_1007 \<and>
   parse_table_rows ! 1008 = parse_table_1008 \<and>
   parse_table_rows ! 1009 = parse_table_1009 \<and>
   parse_table_rows ! 1010 = parse_table_1010 \<and>
   parse_table_rows ! 1011 = parse_table_1011 \<and>
   parse_table_rows ! 1012 = parse_table_1012 \<and>
   parse_table_rows ! 1015 = parse_table_1015 \<and>
   parse_table_rows ! 1016 = parse_table_1016 \<and>
   parse_table_rows ! 1017 = parse_table_1017 \<and>
   parse_table_rows ! 1018 = parse_table_1018 \<and>
   parse_table_rows ! 1021 = parse_table_1021 \<and>
   parse_table_rows ! 1026 = parse_table_1026 \<and>
   parse_table_rows ! 1027 = parse_table_1027 \<and>
   parse_table_rows ! 1030 = parse_table_1030 \<and>
   parse_table_rows ! 1037 = parse_table_1037 \<and>
   parse_table_rows ! 1040 = parse_table_1040 \<and>
   parse_table_rows ! 1041 = parse_table_1041 \<and>
   parse_table_rows ! 1043 = parse_table_1043 \<and>
   parse_table_rows ! 1044 = parse_table_1044 \<and>
   parse_table_rows ! 1046 = parse_table_1046 \<and> parse_table_rows ! 1048 = parse_table_1048"
proof -
  have "holds_from (\<lambda>i row. parse_table_rows ! i = row) 900 parse_rows_6"
    using nth_append_places [of "parse_rows_0 @ parse_rows_1 @ parse_rows_2 @ parse_rows_3 @ parse_rows_4 @ parse_rows_5" parse_rows_6 "parse_rows_7 @ parse_rows_8"] parse_rows_lengths
    by (simp add: parse_table_rows_def)
  then show ?thesis unfolding parse_rows_6_def by (simp del: One_nat_def)
qed

lemma table_places_7:
  "parse_table_rows ! 1050 = parse_table_1050 \<and>
   parse_table_rows ! 1053 = parse_table_1053 \<and>
   parse_table_rows ! 1055 = parse_table_1055 \<and>
   parse_table_rows ! 1056 = parse_table_1056 \<and>
   parse_table_rows ! 1058 = parse_table_1058 \<and>
   parse_table_rows ! 1059 = parse_table_1059 \<and>
   parse_table_rows ! 1062 = parse_table_1062 \<and>
   parse_table_rows ! 1064 = parse_table_1064 \<and>
   parse_table_rows ! 1065 = parse_table_1065 \<and>
   parse_table_rows ! 1066 = parse_table_1066 \<and>
   parse_table_rows ! 1067 = parse_table_1067 \<and>
   parse_table_rows ! 1069 = parse_table_1069 \<and>
   parse_table_rows ! 1070 = parse_table_1070 \<and>
   parse_table_rows ! 1072 = parse_table_1072 \<and>
   parse_table_rows ! 1073 = parse_table_1073 \<and>
   parse_table_rows ! 1075 = parse_table_1075 \<and>
   parse_table_rows ! 1076 = parse_table_1076 \<and>
   parse_table_rows ! 1077 = parse_table_1077 \<and>
   parse_table_rows ! 1078 = parse_table_1078 \<and>
   parse_table_rows ! 1079 = parse_table_1079 \<and>
   parse_table_rows ! 1081 = parse_table_1081 \<and>
   parse_table_rows ! 1082 = parse_table_1082 \<and>
   parse_table_rows ! 1085 = parse_table_1085 \<and>
   parse_table_rows ! 1087 = parse_table_1087 \<and>
   parse_table_rows ! 1088 = parse_table_1088 \<and>
   parse_table_rows ! 1089 = parse_table_1089 \<and>
   parse_table_rows ! 1092 = parse_table_1092 \<and>
   parse_table_rows ! 1101 = parse_table_1101 \<and>
   parse_table_rows ! 1103 = parse_table_1103 \<and>
   parse_table_rows ! 1104 = parse_table_1104 \<and>
   parse_table_rows ! 1110 = parse_table_1110 \<and>
   parse_table_rows ! 1116 = parse_table_1116 \<and>
   parse_table_rows ! 1117 = parse_table_1117 \<and>
   parse_table_rows ! 1118 = parse_table_1118 \<and>
   parse_table_rows ! 1119 = parse_table_1119 \<and>
   parse_table_rows ! 1121 = parse_table_1121 \<and>
   parse_table_rows ! 1133 = parse_table_1133 \<and>
   parse_table_rows ! 1138 = parse_table_1138 \<and>
   parse_table_rows ! 1142 = parse_table_1142 \<and>
   parse_table_rows ! 1148 = parse_table_1148 \<and>
   parse_table_rows ! 1154 = parse_table_1154 \<and>
   parse_table_rows ! 1157 = parse_table_1157 \<and>
   parse_table_rows ! 1158 = parse_table_1158 \<and>
   parse_table_rows ! 1160 = parse_table_1160 \<and>
   parse_table_rows ! 1161 = parse_table_1161 \<and>
   parse_table_rows ! 1167 = parse_table_1167 \<and>
   parse_table_rows ! 1169 = parse_table_1169 \<and>
   parse_table_rows ! 1173 = parse_table_1173 \<and> parse_table_rows ! 1187 = parse_table_1187"
proof -
  have "holds_from (\<lambda>i row. parse_table_rows ! i = row) 1050 parse_rows_7"
    using nth_append_places [of "parse_rows_0 @ parse_rows_1 @ parse_rows_2 @ parse_rows_3 @ parse_rows_4 @ parse_rows_5 @ parse_rows_6" parse_rows_7 "parse_rows_8"] parse_rows_lengths
    by (simp add: parse_table_rows_def)
  then show ?thesis unfolding parse_rows_7_def by (simp del: One_nat_def)
qed

lemma table_places_8:
  "parse_table_rows ! 1214 = parse_table_1214 \<and>
   parse_table_rows ! 1218 = parse_table_1218 \<and>
   parse_table_rows ! 1219 = parse_table_1219 \<and>
   parse_table_rows ! 1220 = parse_table_1220 \<and>
   parse_table_rows ! 1222 = parse_table_1222 \<and>
   parse_table_rows ! 1223 = parse_table_1223 \<and>
   parse_table_rows ! 1224 = parse_table_1224 \<and>
   parse_table_rows ! 1225 = parse_table_1225 \<and>
   parse_table_rows ! 1226 = parse_table_1226 \<and>
   parse_table_rows ! 1227 = parse_table_1227 \<and>
   parse_table_rows ! 1228 = parse_table_1228 \<and>
   parse_table_rows ! 1229 = parse_table_1229 \<and>
   parse_table_rows ! 1230 = parse_table_1230 \<and>
   parse_table_rows ! 1231 = parse_table_1231 \<and>
   parse_table_rows ! 1232 = parse_table_1232 \<and>
   parse_table_rows ! 1233 = parse_table_1233 \<and>
   parse_table_rows ! 1234 = parse_table_1234 \<and>
   parse_table_rows ! 1235 = parse_table_1235 \<and>
   parse_table_rows ! 1236 = parse_table_1236 \<and>
   parse_table_rows ! 1237 = parse_table_1237 \<and>
   parse_table_rows ! 1238 = parse_table_1238 \<and>
   parse_table_rows ! 1239 = parse_table_1239 \<and>
   parse_table_rows ! 1240 = parse_table_1240 \<and>
   parse_table_rows ! 1241 = parse_table_1241 \<and>
   parse_table_rows ! 1242 = parse_table_1242 \<and>
   parse_table_rows ! 1243 = parse_table_1243 \<and>
   parse_table_rows ! 1244 = parse_table_1244 \<and>
   parse_table_rows ! 1245 = parse_table_1245 \<and>
   parse_table_rows ! 1246 = parse_table_1246 \<and>
   parse_table_rows ! 1247 = parse_table_1247 \<and>
   parse_table_rows ! 1248 = parse_table_1248 \<and>
   parse_table_rows ! 1249 = parse_table_1249 \<and>
   parse_table_rows ! 1250 = parse_table_1250 \<and>
   parse_table_rows ! 1251 = parse_table_1251 \<and>
   parse_table_rows ! 1253 = parse_table_1253 \<and>
   parse_table_rows ! 1254 = parse_table_1254 \<and>
   parse_table_rows ! 1255 = parse_table_1255 \<and>
   parse_table_rows ! 1256 = parse_table_1256 \<and>
   parse_table_rows ! 1257 = parse_table_1257 \<and>
   parse_table_rows ! 1258 = parse_table_1258 \<and>
   parse_table_rows ! 1259 = parse_table_1259 \<and>
   parse_table_rows ! 1260 = parse_table_1260 \<and>
   parse_table_rows ! 1261 = parse_table_1261 \<and>
   parse_table_rows ! 1262 = parse_table_1262 \<and>
   parse_table_rows ! 1263 = parse_table_1263 \<and>
   parse_table_rows ! 1264 = parse_table_1264 \<and>
   parse_table_rows ! 1265 = parse_table_1265 \<and>
   parse_table_rows ! 1266 = parse_table_1266 \<and>
   parse_table_rows ! 1268 = parse_table_1268 \<and>
   parse_table_rows ! 1269 = parse_table_1269 \<and>
   parse_table_rows ! 1270 = parse_table_1270 \<and>
   parse_table_rows ! 1271 = parse_table_1271 \<and>
   parse_table_rows ! 1272 = parse_table_1272 \<and>
   parse_table_rows ! 1274 = parse_table_1274 \<and>
   parse_table_rows ! 1275 = parse_table_1275 \<and>
   parse_table_rows ! 1276 = parse_table_1276 \<and> parse_table_rows ! 1278 = parse_table_1278"
proof -
  have "holds_from (\<lambda>i row. parse_table_rows ! i = row) 1200 parse_rows_8"
    using nth_append_places [of "parse_rows_0 @ parse_rows_1 @ parse_rows_2 @ parse_rows_3 @ parse_rows_4 @ parse_rows_5 @ parse_rows_6 @ parse_rows_7" parse_rows_8 "[]"] parse_rows_lengths
    by (simp add: parse_table_rows_def)
  then show ?thesis unfolding parse_rows_8_def by (simp del: One_nat_def)
qed

section \<open>Blocks of rows\<close>

lemma parse_rows_0_follow:
  "list_all2 (\<lambda>p row. row_follows row (parse_table_rows ! p)) ts_primary_state_ids_0 parse_rows_0"
  unfolding ts_primary_state_ids_0_def parse_rows_0_def
  by (simp del: One_nat_def add: row_follows_refl table_places_0
    parse_table_66_follows)

lemma parse_rows_1_follow:
  "list_all2 (\<lambda>p row. row_follows row (parse_table_rows ! p)) ts_primary_state_ids_1 parse_rows_1"
  unfolding ts_primary_state_ids_1_def parse_rows_1_def
  by (simp del: One_nat_def add: row_follows_refl table_places_1
)

lemma parse_rows_2_follow:
  "list_all2 (\<lambda>p row. row_follows row (parse_table_rows ! p)) ts_primary_state_ids_2 parse_rows_2"
  unfolding ts_primary_state_ids_2_def parse_rows_2_def
  by (simp del: One_nat_def add: row_follows_refl table_places_2
)

lemma parse_rows_3_follow:
  "list_all2 (\<lambda>p row. row_follows row (parse_table_rows ! p)) ts_primary_state_ids_3 parse_rows_3"
  unfolding ts_primary_state_ids_3_def parse_rows_3_def
  by (simp del: One_nat_def add: row_follows_refl table_places_0 table_places_3
    parse_table_464_follows parse_table_465_follows parse_table_466_follows
    parse_table_467_follows parse_table_468_follows parse_table_469_follows
    parse_table_470_follows parse_table_471_follows parse_table_472_follows
    parse_table_473_follows parse_table_474_follows parse_table_475_follows
    parse_table_476_follows parse_table_477_follows parse_table_478_follows
    parse_table_479_follows parse_table_480_follows parse_table_481_follows
    parse_table_482_follows parse_table_483_follows parse_table_484_follows
    parse_table_485_follows parse_table_486_follows parse_table_487_follows
    parse_table_488_follows parse_table_489_follows parse_table_490_follows
    parse_table_491_follows parse_table_492_follows parse_table_493_follows
    parse_table_494_follows parse_table_495_follows parse_table_496_follows
    parse_table_497_follows parse_table_498_follows parse_table_499_follows
    parse_table_500_follows parse_table_501_follows parse_table_502_follows
    parse_table_503_follows parse_table_504_follows parse_table_505_follows
    parse_table_506_follows parse_table_507_follows parse_table_508_follows
    parse_table_509_follows parse_table_510_follows parse_table_511_follows
    parse_table_512_follows parse_table_513_follows parse_table_514_follows
    parse_table_515_follows parse_table_516_follows parse_table_517_follows
    parse_table_518_follows parse_table_519_follows parse_table_520_follows
    parse_table_521_follows parse_table_522_follows parse_table_523_follows
    parse_table_524_follows parse_table_525_follows parse_table_526_follows
    parse_table_527_follows parse_table_528_follows parse_table_529_follows
    parse_table_530_follows parse_table_531_follows parse_table_532_follows
    parse_table_533_follows parse_table_534_follows parse_table_535_follows
    parse_table_536_follows parse_table_537_follows parse_table_538_follows
    parse_table_539_follows parse_table_540_follows parse_table_541_follows
    parse_table_542_follows parse_table_543_follows parse_table_544_follows
    parse_table_545_follows parse_table_546_follows parse_table_547_follows
    parse_table_548_follows parse_table_549_follows parse_table_550_follows
    parse_table_551_follows parse_table_552_follows parse_table_553_follows
    parse_table_554_follows parse_table_555_follows parse_table_556_follows
    parse_table_557_follows parse_table_558_follows parse_table_559_follows
    parse_table_560_follows parse_table_561_follows parse_table_562_follows
    parse_table_563_follows parse_table_564_follows parse_table_565_follows
    parse_table_566_follows parse_table_567_follows parse_table_568_follows
    parse_table_569_follows parse_table_570_follows parse_table_571_follows
    parse_table_572_follows parse_table_573_follows parse_table_574_follows
    parse_table_575_follows parse_table_576_follows parse_table_577_follows
    parse_table_578_follows parse_table_579_follows parse_table_580_follows
    parse_table_581_follows parse_table_582_follows parse_table_583_follows
    parse_table_584_follows parse_table_585_follows parse_table_586_follows
    parse_table_587_follows parse_table_588_follows parse_table_589_follows
    parse_table_590_follows parse_table_591_follows parse_table_592_follows
    parse_table_593_follows parse_table_594_follows parse_table_595_follows
    parse_table_596_follows parse_table_597_follows parse_table_598_follows
    parse_table_599_follows)

lemma parse_rows_4_follow:
  "list_all2 (\<lambda>p row. row_follows row (parse_table_rows ! p)) ts_primary_state_ids_4 parse_rows_4"
  unfolding ts_primary_state_ids_4_def parse_rows_4_def
  by (simp del: One_nat_def add: row_follows_refl table_places_0 table_places_1
    parse_table_600_follows parse_table_601_follows parse_table_602_follows
    parse_table_603_follows parse_table_604_follows parse_table_605_follows
    parse_table_606_follows parse_table_607_follows parse_table_608_follows
    parse_table_609_follows parse_table_610_follows parse_table_611_follows
    parse_table_612_follows parse_table_613_follows parse_table_614_follows
    parse_table_615_follows parse_table_616_follows parse_table_617_follows
    parse_table_618_follows parse_table_619_follows parse_table_620_follows
    parse_table_621_follows parse_table_622_follows parse_table_623_follows
    parse_table_624_follows parse_table_625_follows parse_table_626_follows
    parse_table_627_follows parse_table_628_follows parse_table_629_follows
    parse_table_630_follows parse_table_631_follows parse_table_632_follows
    parse_table_633_follows parse_table_634_follows parse_table_635_follows
    parse_table_636_follows parse_table_637_follows parse_table_638_follows
    parse_table_639_follows parse_table_640_follows parse_table_641_follows
    parse_table_642_follows parse_table_643_follows parse_table_644_follows
    parse_table_645_follows parse_table_646_follows parse_table_647_follows
    parse_table_648_follows parse_table_649_follows parse_table_650_follows
    parse_table_651_follows parse_table_652_follows parse_table_653_follows
    parse_table_654_follows parse_table_655_follows parse_table_656_follows
    parse_table_657_follows parse_table_658_follows parse_table_659_follows
    parse_table_660_follows parse_table_661_follows parse_table_662_follows
    parse_table_663_follows parse_table_664_follows parse_table_665_follows
    parse_table_666_follows parse_table_667_follows parse_table_668_follows
    parse_table_669_follows parse_table_670_follows parse_table_671_follows
    parse_table_672_follows parse_table_673_follows parse_table_674_follows
    parse_table_675_follows parse_table_676_follows parse_table_677_follows
    parse_table_678_follows parse_table_679_follows parse_table_680_follows
    parse_table_681_follows parse_table_682_follows parse_table_683_follows
    parse_table_684_follows parse_table_685_follows parse_table_686_follows
    parse_table_687_follows parse_table_688_follows parse_table_689_follows
    parse_table_690_follows parse_table_691_follows parse_table_692_follows
    parse_table_693_follows parse_table_694_follows parse_table_695_follows
    parse_table_696_follows parse_table_697_follows parse_table_698_follows
    parse_table_699_follows parse_table_700_follows parse_table_701_follows
    parse_table_702_follows parse_table_703_follows parse_table_704_follows
    parse_table_705_follows parse_table_706_follows parse_table_707_follows
    parse_table_708_follows parse_table_709_follows parse_table_710_follows
    parse_table_711_follows parse_table_712_follows parse_table_713_follows
    parse_table_714_follows parse_table_715_follows parse_table_716_follows
    parse_table_717_follows parse_table_718_follows parse_table_719_follows
    parse_table_720_follows parse_table_721_follows parse_table_722_follows
    parse_table_723_follows parse_table_724_follows parse_table_725_follows
    parse_table_726_follows parse_table_727_follows parse_table_728_follows
    parse_table_729_follows parse_table_730_follows parse_table_731_follows
    parse_table_732_follows parse_table_733_follows parse_table_734_follows
    parse_table_735_follows parse_table_736_follows parse_table_737_follows
    parse_table_738_follows parse_table_739_follows parse_table_740_follows
    parse_table_741_follows parse_table_742_follows parse_table_743_follows
    parse_table_744_follows parse_table_745_follows parse_table_746_follows
    parse_table_747_follows parse_table_748_follows parse_table_749_follows)

lemma parse_rows_5_follow:
  "list_all2 (\<lambda>p row. row_follows row (parse_table_rows ! p)) ts_primary_state_ids_5 parse_rows_5"
  unfolding ts_primary_state_ids_5_def parse_rows_5_def
  by (simp del: One_nat_def add: row_follows_refl table_places_1 table_places_2
    parse_table_750_follows parse_table_751_follows parse_table_752_follows
    parse_table_753_follows parse_table_754_follows parse_table_755_follows
    parse_table_756_follows parse_table_757_follows parse_table_758_follows
    parse_table_759_follows parse_table_760_follows parse_table_761_follows
    parse_table_762_follows parse_table_763_follows parse_table_764_follows
    parse_table_765_follows parse_table_766_follows parse_table_767_follows
    parse_table_768_follows parse_table_769_follows parse_table_770_follows
    parse_table_771_follows parse_table_772_follows parse_table_773_follows
    parse_table_774_follows parse_table_775_follows parse_table_776_follows
    parse_table_777_follows parse_table_778_follows parse_table_779_follows
    parse_table_780_follows parse_table_781_follows parse_table_782_follows
    parse_table_783_follows parse_table_784_follows parse_table_785_follows
    parse_table_786_follows parse_table_787_follows parse_table_788_follows
    parse_table_789_follows parse_table_790_follows parse_table_791_follows
    parse_table_792_follows parse_table_793_follows parse_table_794_follows
    parse_table_795_follows parse_table_796_follows parse_table_797_follows
    parse_table_798_follows parse_table_799_follows parse_table_800_follows
    parse_table_801_follows parse_table_802_follows parse_table_803_follows
    parse_table_804_follows parse_table_805_follows parse_table_806_follows
    parse_table_807_follows parse_table_808_follows parse_table_809_follows
    parse_table_810_follows parse_table_811_follows parse_table_812_follows
    parse_table_813_follows parse_table_814_follows parse_table_815_follows
    parse_table_816_follows parse_table_817_follows parse_table_818_follows
    parse_table_819_follows parse_table_820_follows parse_table_821_follows
    parse_table_822_follows parse_table_823_follows parse_table_824_follows
    parse_table_825_follows parse_table_826_follows parse_table_827_follows
    parse_table_828_follows parse_table_829_follows parse_table_830_follows
    parse_table_831_follows parse_table_832_follows parse_table_833_follows
    parse_table_834_follows parse_table_835_follows parse_table_836_follows
    parse_table_837_follows parse_table_838_follows parse_table_839_follows
    parse_table_840_follows parse_table_841_follows parse_table_842_follows
    parse_table_843_follows parse_table_844_follows parse_table_845_follows
    parse_table_846_follows parse_table_847_follows parse_table_848_follows
    parse_table_849_follows parse_table_850_follows parse_table_851_follows
    parse_table_852_follows parse_table_853_follows parse_table_854_follows
    parse_table_855_follows parse_table_856_follows parse_table_857_follows
    parse_table_858_follows parse_table_859_follows parse_table_860_follows
    parse_table_861_follows parse_table_862_follows parse_table_863_follows
    parse_table_864_follows parse_table_865_follows parse_table_866_follows
    parse_table_867_follows parse_table_868_follows parse_table_869_follows
    parse_table_870_follows parse_table_871_follows parse_table_872_follows
    parse_table_873_follows parse_table_874_follows parse_table_875_follows
    parse_table_876_follows parse_table_877_follows parse_table_878_follows
    parse_table_879_follows parse_table_880_follows parse_table_881_follows
    parse_table_882_follows parse_table_883_follows parse_table_884_follows
    parse_table_885_follows parse_table_886_follows parse_table_887_follows
    parse_table_888_follows parse_table_889_follows parse_table_890_follows
    parse_table_891_follows parse_table_892_follows parse_table_893_follows
    parse_table_894_follows parse_table_895_follows parse_table_896_follows
    parse_table_897_follows parse_table_898_follows parse_table_899_follows)

lemma parse_rows_6_follow:
  "list_all2 (\<lambda>p row. row_follows row (parse_table_rows ! p)) ts_primary_state_ids_6 parse_rows_6"
  unfolding ts_primary_state_ids_6_def parse_rows_6_def
  by (simp del: One_nat_def add: row_follows_refl table_places_2 table_places_3 table_places_6
    parse_table_900_follows parse_table_901_follows parse_table_902_follows
    parse_table_903_follows parse_table_904_follows parse_table_905_follows
    parse_table_906_follows parse_table_907_follows parse_table_908_follows
    parse_table_909_follows parse_table_910_follows parse_table_911_follows
    parse_table_912_follows parse_table_913_follows parse_table_914_follows
    parse_table_915_follows parse_table_916_follows parse_table_918_follows
    parse_table_919_follows parse_table_922_follows parse_table_924_follows
    parse_table_925_follows parse_table_926_follows parse_table_927_follows
    parse_table_928_follows parse_table_969_follows parse_table_996_follows
    parse_table_999_follows parse_table_1002_follows parse_table_1013_follows
    parse_table_1014_follows parse_table_1019_follows parse_table_1020_follows
    parse_table_1022_follows parse_table_1023_follows parse_table_1024_follows
    parse_table_1025_follows parse_table_1028_follows parse_table_1029_follows
    parse_table_1031_follows parse_table_1032_follows parse_table_1033_follows
    parse_table_1034_follows parse_table_1035_follows parse_table_1036_follows
    parse_table_1038_follows parse_table_1039_follows parse_table_1042_follows
    parse_table_1045_follows parse_table_1047_follows parse_table_1049_follows)

lemma parse_rows_7_follow:
  "list_all2 (\<lambda>p row. row_follows row (parse_table_rows ! p)) ts_primary_state_ids_7 parse_rows_7"
  unfolding ts_primary_state_ids_7_def parse_rows_7_def
  by (simp del: One_nat_def add: row_follows_refl table_places_6 table_places_7
    parse_table_1051_follows parse_table_1052_follows parse_table_1054_follows
    parse_table_1057_follows parse_table_1060_follows parse_table_1061_follows
    parse_table_1063_follows parse_table_1068_follows parse_table_1071_follows
    parse_table_1074_follows parse_table_1080_follows parse_table_1083_follows
    parse_table_1084_follows parse_table_1086_follows parse_table_1090_follows
    parse_table_1091_follows parse_table_1093_follows parse_table_1094_follows
    parse_table_1095_follows parse_table_1096_follows parse_table_1097_follows
    parse_table_1098_follows parse_table_1099_follows parse_table_1100_follows
    parse_table_1102_follows parse_table_1105_follows parse_table_1106_follows
    parse_table_1107_follows parse_table_1108_follows parse_table_1109_follows
    parse_table_1111_follows parse_table_1112_follows parse_table_1113_follows
    parse_table_1114_follows parse_table_1115_follows parse_table_1120_follows
    parse_table_1122_follows parse_table_1123_follows parse_table_1124_follows
    parse_table_1125_follows parse_table_1126_follows parse_table_1127_follows
    parse_table_1128_follows parse_table_1129_follows parse_table_1130_follows
    parse_table_1131_follows parse_table_1132_follows parse_table_1134_follows
    parse_table_1135_follows parse_table_1136_follows parse_table_1137_follows
    parse_table_1139_follows parse_table_1140_follows parse_table_1141_follows
    parse_table_1143_follows parse_table_1144_follows parse_table_1145_follows
    parse_table_1146_follows parse_table_1147_follows parse_table_1149_follows
    parse_table_1150_follows parse_table_1151_follows parse_table_1152_follows
    parse_table_1153_follows parse_table_1155_follows parse_table_1156_follows
    parse_table_1159_follows parse_table_1162_follows parse_table_1163_follows
    parse_table_1164_follows parse_table_1165_follows parse_table_1166_follows
    parse_table_1168_follows parse_table_1170_follows parse_table_1171_follows
    parse_table_1172_follows parse_table_1174_follows parse_table_1175_follows
    parse_table_1176_follows parse_table_1177_follows parse_table_1178_follows
    parse_table_1179_follows parse_table_1180_follows parse_table_1181_follows
    parse_table_1182_follows parse_table_1183_follows parse_table_1184_follows
    parse_table_1185_follows parse_table_1186_follows parse_table_1188_follows
    parse_table_1189_follows parse_table_1190_follows parse_table_1191_follows
    parse_table_1192_follows parse_table_1193_follows parse_table_1194_follows
    parse_table_1195_follows parse_table_1196_follows parse_table_1197_follows
    parse_table_1198_follows parse_table_1199_follows)

lemma parse_rows_8_follow:
  "list_all2 (\<lambda>p row. row_follows row (parse_table_rows ! p)) (take 79 ts_primary_state_ids_8) parse_rows_8"
  unfolding ts_primary_state_ids_8_def parse_rows_8_def
  by (simp del: One_nat_def add: row_follows_refl table_places_6 table_places_7 table_places_8
    parse_table_1200_follows parse_table_1201_follows parse_table_1202_follows
    parse_table_1203_follows parse_table_1204_follows parse_table_1205_follows
    parse_table_1206_follows parse_table_1207_follows parse_table_1208_follows
    parse_table_1209_follows parse_table_1210_follows parse_table_1211_follows
    parse_table_1212_follows parse_table_1213_follows parse_table_1215_follows
    parse_table_1216_follows parse_table_1217_follows parse_table_1221_follows
    parse_table_1252_follows parse_table_1267_follows parse_table_1273_follows
    parse_table_1277_follows)

end
