(* ===== verification/Mojo_Primary_Properties.thy ===== *)
theory Mojo_Primary_Properties
  imports Mojo_Primary_Row_Blocks
begin

text \<open>
  Primary states are a quotient of the automaton of the parse table: whatever a state can shift, its
  primary state can shift as well, and it arrives at a state with the same primary state.
\<close>

section \<open>Rows of primary states\<close>

text \<open>The primary states of the states of the modelled rows, a prefix of \<open>ts_primary_state_ids\<close>.\<close>

definition table_primaries :: "nat list" where
  "table_primaries = ts_primary_state_ids_0 @ ts_primary_state_ids_1 @ ts_primary_state_ids_2 @
     ts_primary_state_ids_3 @ ts_primary_state_ids_4 @ ts_primary_state_ids_5 @ ts_primary_state_ids_6 @
     ts_primary_state_ids_7 @ take 79 ts_primary_state_ids_8"

lemma parse_table_rows_length: "length parse_table_rows = 1279"
  using parse_rows_lengths by (simp add: parse_table_rows_def)

lemma table_primaries_nth:
  assumes "s < 1279"
  shows "ts_primary_state_ids ! s = table_primaries ! s"
proof -
  have "\<exists>rest. ts_primary_state_ids = (ts_primary_state_ids_0 @ ts_primary_state_ids_1 @
      ts_primary_state_ids_2 @ ts_primary_state_ids_3 @ ts_primary_state_ids_4 @ ts_primary_state_ids_5 @
      ts_primary_state_ids_6 @ ts_primary_state_ids_7) @ ts_primary_state_ids_8 @ rest"
    unfolding ts_primary_state_ids_def concat.simps append_assoc by (rule exI) (rule refl)
  then have "\<exists>rest. ts_primary_state_ids = table_primaries @ rest"
    unfolding table_primaries_def by (metis append_assoc append_take_drop_id)
  moreover have "length table_primaries = 1279"
    using primary_lengths by (simp add: table_primaries_def)
  ultimately show ?thesis using assms by (metis nth_append)
qed

lemma primary_row_follows:
  assumes "s < length parse_table_rows"
  shows "row_follows (parse_table_rows ! s) (parse_table_rows ! (ts_primary_state_ids ! s))"
proof -
  have "list_all2 (\<lambda>p row. row_follows row (parse_table_rows ! p)) table_primaries parse_table_rows"
    unfolding table_primaries_def
    by (subst (2) parse_table_rows_def) (intro list_all2_appendI parse_rows_0_follow parse_rows_1_follow
        parse_rows_2_follow parse_rows_3_follow parse_rows_4_follow parse_rows_5_follow parse_rows_6_follow
        parse_rows_7_follow parse_rows_8_follow)
  then have "row_follows (parse_table_rows ! s) (parse_table_rows ! (table_primaries ! s))"
    using assms by (simp only: list_all2_conv_all_nth)
  with table_primaries_nth [of s] assms show ?thesis by (simp add: parse_table_rows_length)
qed

section \<open>Steps\<close>

lemma table_step_primary:
  assumes "table_step s x = Some t"
  shows "\<exists>u. table_step (ts_primary_state_ids ! s) x = Some u \<and>
    ts_primary_state_ids ! u = ts_primary_state_ids ! t"
proof -
  let ?p = "ts_primary_state_ids ! s" and ?v = "parse_table_entry s x"
  have s: "s < length parse_table_rows" "x < SYMBOL_COUNT" "next_state s x = Some t"
    using assms by (auto simp: table_step_def split: if_splits)
  then have prim: "?p < length parse_table_rows" "ts_primary_state_ids ! ?p = ?p"
    using primary_state [of s] by (auto simp: primary_fixed_def parse_table_rows_length STATE_COUNT_def)
  have "value_follows x ?v (parse_table_entry ?p x)"
    using primary_row_follows [OF s(1)] s(2) by (simp add: row_follows_def row_entry_def parse_table_entry_def)
  then have "\<exists>u. next_state ?p x = Some u \<and> ts_primary_state_ids ! u = ts_primary_state_ids ! t"
  proof (cases "x < TOKEN_COUNT")
    case True
    then obtain a extra where "actions_shift ?v = Some (a, extra)" "t = (if extra then s else a)"
      using s(3) by (auto simp: next_state_def)
    with \<open>value_follows x ?v _\<close> True prim(2) show ?thesis
      by (cases "actions_shift (parse_table_entry ?p x)") (auto simp: next_state_def value_follows_def)
  next
    case False
    with s(3) have "t = ?v" "?v \<noteq> 0" by (auto simp: next_state_def split: if_splits)
    with \<open>value_follows x ?v _\<close> False show ?thesis by (auto simp: next_state_def value_follows_def)
  qed
  then show ?thesis using prim(1) s(2) by (simp add: table_step_def)
qed

interpretation primaries: automaton_quotient table_step "(!) ts_primary_state_ids"
  by unfold_locales (rule table_step_primary)

section \<open>Properties\<close>

text \<open>C33: The table \<open>ts_primary_state_ids\<close> is a congruence of the automaton of the parse table. If the parser
  can shift the symbols \<open>xs\<close>, terminals and nonterminals, from the state \<open>s\<close> and arrives at \<open>t\<close>, all through
  the first 1279 rows, then primary states alone can follow: from the primary state of \<open>s\<close>, going on from
  the primary state of every state that is reached, the symbols lead to the primary state of \<open>t\<close>. So states
  with the same primary state stay together: the same symbols never lead them to states with different
  primary states.\<close>

theorem primary_states_congruent:
  assumes "walk table_step s xs = Some t"
  shows "walk (\<lambda>p x. map_option ((!) ts_primary_state_ids) (table_step p x)) (ts_primary_state_ids ! s) xs =
      Some (ts_primary_state_ids ! t) \<and>
    (\<forall>s' t'. ts_primary_state_ids ! s' = ts_primary_state_ids ! s \<and> walk table_step s' xs = Some t' \<longrightarrow>
      ts_primary_state_ids ! t' = ts_primary_state_ids ! t)"
  using primaries.walk_rep [OF assms] primaries.walks_agree [OF _ _ assms] by blast

text \<open>The state 66 is not its own primary state.\<close>

theorem primary_states_congruent_witness:
  "walk table_step 66 [sym__statement] = Some 925 \<and>
   walk (\<lambda>p x. map_option ((!) ts_primary_state_ids) (table_step p x)) 2 [sym__statement] = Some 920"
proof -
  have "parse_table_rows ! 66 = parse_table_66"
    by (simp add: parse_table_rows_def parse_rows_0_def)
  then have "parse_table_entry 66 sym__statement = 925"
    by (simp add: parse_table_entry_def designated_nth parse_table_66_def symbol_number_defs SYMBOL_COUNT_def
        STATE_def)
  then have w: "walk table_step 66 [sym__statement] = Some 925"
    by (simp add: table_step_def next_state_def parse_table_rows_length sym__statement_def SYMBOL_COUNT_def
        TOKEN_COUNT_def)
  have p: "ts_primary_state_ids ! 66 = 2"
    using primary_run_nth [OF primary_runs_mem(1), of 66] by (simp add: ts_primary_state_ids_0_def)
  have q: "ts_primary_state_ids ! 925 = 920" using primary_ids_6 by simp
  from primary_states_congruent [OF w] w show ?thesis unfolding p q by blast
qed

end
