(* ===== verification/Janet_Heap.thy ===== *)
theory Janet_Heap
  imports Prelude
begin

text \<open>
  The heap of the Janet virtual machine as its garbage collector sees it
  (\<^verbatim>\<open>vendor/evil-janet/csrc/janet.h\<close> and \<^verbatim>\<open>janet.c\<close>): values, the kinds of memory blocks, what
  each block contains that the collector reads, and the collector's fields of \<open>janet_vm\<close>.

  An address names a block; a tuple, struct, string or abstract value, which in C points
  behind its header, is named by its header's address. The flag word of a block header is
  split into its three bit fields. The two linked lists of blocks are lists of addresses, and
  so is the chain of stack frames of a fiber. What code outside the collector does when the
  collector calls it back (the \<open>gcmark\<close> function of an abstract type, the event callback of a
  fiber) is given by the values it marks.
\<close>

type_synonym addr = nat

datatype Janet =
  JANET_NIL | JANET_BOOLEAN bool | JANET_NUMBER "64 word" | JANET_CFUNCTION nat | JANET_POINTER nat
| JANET_STRING addr | JANET_SYMBOL addr | JANET_KEYWORD addr | JANET_ARRAY addr | JANET_TUPLE addr
| JANET_TABLE addr | JANET_STRUCT addr | JANET_BUFFER addr | JANET_FUNCTION addr | JANET_FIBER addr
| JANET_ABSTRACT addr

datatype JanetMemoryType =
  JANET_MEMORY_NONE | JANET_MEMORY_STRING | JANET_MEMORY_SYMBOL | JANET_MEMORY_ARRAY
| JANET_MEMORY_TUPLE | JANET_MEMORY_TABLE | JANET_MEMORY_STRUCT | JANET_MEMORY_FIBER
| JANET_MEMORY_BUFFER | JANET_MEMORY_FUNCTION | JANET_MEMORY_ABSTRACT | JANET_MEMORY_FUNCENV
| JANET_MEMORY_FUNCDEF | JANET_MEMORY_THREADED_ABSTRACT | JANET_MEMORY_TABLE_WEAKK
| JANET_MEMORY_TABLE_WEAKV | JANET_MEMORY_TABLE_WEAKKV | JANET_MEMORY_ARRAY_WEAK

datatype JanetFiberStatus =
  JANET_STATUS_DEAD | JANET_STATUS_ERROR | JANET_STATUS_DEBUG | JANET_STATUS_PENDING
| JANET_STATUS_USER0 | JANET_STATUS_USER1 | JANET_STATUS_USER2 | JANET_STATUS_USER3
| JANET_STATUS_USER4 | JANET_STATUS_USER5 | JANET_STATUS_USER6 | JANET_STATUS_USER7
| JANET_STATUS_USER8 | JANET_STATUS_USER9 | JANET_STATUS_NEW | JANET_STATUS_ALIVE

record JanetKV =
  kv_key :: Janet
  kv_value :: Janet

record JanetTable =
  tbl_count :: int
  tbl_deleted :: int
  tbl_data :: "JanetKV list"
  tbl_proto :: "addr option"

text \<open>The union \<open>as\<close> of a function environment.\<close>

datatype env_as = AsFiber addr | AsValues "Janet list"

record JanetFuncEnv =
  env_as :: env_as
  env_length :: nat
  env_offset :: int

record JanetFuncDef =
  def_constants :: "Janet list"
  def_defs :: "addr list"
  def_source :: "addr option"
  def_name :: "addr option"
  def_symbolmap :: "addr list"
  def_environments_length :: nat
  def_slotcount :: nat
  def_closure_bitset :: "u32 list option"

record JanetFunction =
  fn_def :: "addr option"
  fn_envs :: "addr list"

text \<open>
  A stack frame stands in the \<open>JANET_FRAME_SIZE\<close> slots below \<open>fr_index\<close>; the frames of a fiber
  are listed from the current one along \<open>prevframe\<close>.
\<close>

definition JANET_FRAME_SIZE :: nat where
  "JANET_FRAME_SIZE = 4"

record JanetStackFrame =
  fr_index :: nat
  fr_func :: "addr option"
  fr_env :: "addr option"

record JanetFiber =
  fib_status :: JanetFiberStatus
  fib_stackstart :: nat
  fib_stacktop :: nat
  fib_data :: "Janet list"
  fib_frames :: "JanetStackFrame list"
  fib_env :: "addr option"
  fib_child :: "addr option"
  fib_last_value :: Janet
  fib_supervisor_channel :: "addr option"
  fib_ev_stream :: "addr option"
  fib_ev_callback :: "Janet list option"
  fib_ev_state :: bool
  fib_in_flight :: bool

datatype gc_data =
  StringData | BufferData | ArrayData "Janet list" | TupleData "Janet list" | TableData JanetTable
| StructData "JanetKV list" "addr option" | FiberData JanetFiber | FunctionData JanetFunction
| FuncEnvData JanetFuncEnv | FuncDefData JanetFuncDef | AbstractData "Janet list option" bool

record JanetGCObject =
  gc_type :: JanetMemoryType
  gc_reachable :: bool
  gc_disabled :: bool
  gc_data :: gc_data

type_synonym heap = "addr \<Rightarrow> JanetGCObject option"

text \<open>Pending tasks of the event loop and timeouts.\<close>

record JanetTask =
  task_fiber :: addr
  task_value :: Janet

record JanetTimeout =
  to_fiber :: addr
  to_curr_fiber :: "addr option"

record JanetVM =
  heap :: heap
  blocks :: "addr list"
  weak_blocks :: "addr list"
  block_count :: nat
  gc_interval :: nat
  next_collection :: nat
  gc_suspend :: int
  gc_mark_phase :: bool
  roots :: "Janet list"
  root_capacity :: nat
  root_fiber :: "addr option"
  top_dyns :: "addr option"
  spawn_head :: nat
  spawn_tail :: nat
  spawn_data :: "JanetTask list"
  tq :: "JanetTimeout list"
  threaded_abstracts :: "(addr \<times> bool) list"
  threaded_refs :: "addr \<Rightarrow> int"
  listener_count :: int
  symcache :: "addr list"
  finalized :: "addr list"
  scratch_mem :: "(addr \<times> nat option) list"
  scratch_calls :: "(nat \<times> addr) list"
  depth :: nat
  orig_rootcount :: nat

end
