(* ===== verification/Janet_GC.thy ===== *)
theory Janet_GC
  imports Janet_Heap
begin

text \<open>
  The garbage collector of the Janet VM, \<^verbatim>\<open>gc.c\<close> in \<^verbatim>\<open>vendor/evil-janet/csrc/janet.c\<close>, with the
  functions of \<open>fiber.c\<close> and \<open>ev.c\<close> it relies on. Definitions only.

  The mark functions call each other without a bound that is visible in the code, so each
  takes fuel, one unit for a call, and running out of it is \<open>None\<close>, as are a null or dangling
  pointer, a block of the wrong kind and a read outside a block. \<open>gc_fuel\<close> is enough for any
  heap (\<open>Janet_GC_Proofs\<close>).
\<close>

definition JANET_RECURSION_GUARD :: nat where
  "JANET_RECURSION_GUARD = 1024"

fun foldM :: "('a \<Rightarrow> 's \<Rightarrow> 's option) \<Rightarrow> 'a list \<Rightarrow> 's \<Rightarrow> 's option" where
  "foldM f [] s = Some s"
| "foldM f (x # xs) s = Option.bind (f x s) (foldM f xs)"

definition slots :: "Janet list \<Rightarrow> nat \<Rightarrow> nat \<Rightarrow> Janet list option" where
  "slots data from n = (if from + n \<le> length data then Some (take n (drop from data)) else None)"

section \<open>Roots\<close>

definition janet_gcpressure :: "nat \<Rightarrow> JanetVM \<Rightarrow> JanetVM" where
  "janet_gcpressure s vm = vm\<lparr>next_collection := next_collection vm + s\<rparr>"

definition janet_gcroot :: "Janet \<Rightarrow> JanetVM \<Rightarrow> JanetVM" where
  "janet_gcroot root vm =
     (let newcount = length (roots vm) + 1;
          vm = (if newcount > root_capacity vm then vm\<lparr>root_capacity := 2 * newcount\<rparr> else vm)
      in vm\<lparr>roots := roots vm @ [root]\<rparr>)"

text \<open>The type and the pointer of a value.\<close>

fun janet_type :: "Janet \<Rightarrow> nat" where
  "janet_type (JANET_NUMBER _) = 0"
| "janet_type JANET_NIL = 1"
| "janet_type (JANET_BOOLEAN _) = 2"
| "janet_type (JANET_FIBER _) = 3"
| "janet_type (JANET_STRING _) = 4"
| "janet_type (JANET_SYMBOL _) = 5"
| "janet_type (JANET_KEYWORD _) = 6"
| "janet_type (JANET_ARRAY _) = 7"
| "janet_type (JANET_TUPLE _) = 8"
| "janet_type (JANET_TABLE _) = 9"
| "janet_type (JANET_STRUCT _) = 10"
| "janet_type (JANET_BUFFER _) = 11"
| "janet_type (JANET_FUNCTION _) = 12"
| "janet_type (JANET_CFUNCTION _) = 13"
| "janet_type (JANET_ABSTRACT _) = 14"
| "janet_type (JANET_POINTER _) = 15"

fun janet_unwrap_pointer :: "Janet \<Rightarrow> nat" where
  "janet_unwrap_pointer (JANET_FIBER a) = a"
| "janet_unwrap_pointer (JANET_STRING a) = a"
| "janet_unwrap_pointer (JANET_SYMBOL a) = a"
| "janet_unwrap_pointer (JANET_KEYWORD a) = a"
| "janet_unwrap_pointer (JANET_ARRAY a) = a"
| "janet_unwrap_pointer (JANET_TUPLE a) = a"
| "janet_unwrap_pointer (JANET_TABLE a) = a"
| "janet_unwrap_pointer (JANET_STRUCT a) = a"
| "janet_unwrap_pointer (JANET_BUFFER a) = a"
| "janet_unwrap_pointer (JANET_FUNCTION a) = a"
| "janet_unwrap_pointer (JANET_CFUNCTION a) = a"
| "janet_unwrap_pointer (JANET_ABSTRACT a) = a"
| "janet_unwrap_pointer (JANET_POINTER a) = a"
| "janet_unwrap_pointer _ = 0"

definition janet_gc_idequals :: "Janet \<Rightarrow> Janet \<Rightarrow> bool" where
  "janet_gc_idequals lhs rhs =
     (if janet_type lhs \<noteq> janet_type rhs then False
      else (case lhs of JANET_BOOLEAN _ \<Rightarrow> True | JANET_NIL \<Rightarrow> True | JANET_NUMBER _ \<Rightarrow> True
        | _ \<Rightarrow> janet_unwrap_pointer lhs = janet_unwrap_pointer rhs))"

text \<open>
  The loops of \<open>janet_gcunroot\<close> and \<open>janet_gcunrootall\<close>, on the array of roots up to
  \<open>root_count\<close>: the element found is overwritten by the last one and the count decremented.
  The loop of \<open>janet_gcunroot\<close> returns there; the other goes on with the next index, up to
  \<open>vtop\<close>, which moves down with the count.
\<close>

function gcunroot_loop :: "Janet \<Rightarrow> nat \<Rightarrow> Janet list \<Rightarrow> bool \<times> Janet list" where
  "gcunroot_loop root v rs =
     (if v < length rs then
        (if janet_gc_idequals root (rs ! v) then (True, butlast (rs[v := last rs]))
         else gcunroot_loop root (v + 1) rs)
      else (False, rs))"
  by pat_completeness auto
termination by (relation "measure (\<lambda>(_, v, rs). length rs - v)") auto

definition janet_gcunroot :: "Janet \<Rightarrow> JanetVM \<Rightarrow> bool \<times> JanetVM" where
  "janet_gcunroot root vm =
     (let (ret, rs) = gcunroot_loop root 0 (roots vm) in (ret, vm\<lparr>roots := rs\<rparr>))"

function gcunrootall_loop :: "Janet \<Rightarrow> nat \<Rightarrow> Janet list \<Rightarrow> bool \<Rightarrow> bool \<times> Janet list" where
  "gcunrootall_loop root v rs ret =
     (if v < length rs then
        (if janet_gc_idequals root (rs ! v)
         then gcunrootall_loop root (v + 1) (butlast (rs[v := last rs])) True
         else gcunrootall_loop root (v + 1) rs ret)
      else (ret, rs))"
  by pat_completeness auto
termination by (relation "measure (\<lambda>(_, v, rs, _). length rs - v)") auto

definition janet_gcunrootall :: "Janet \<Rightarrow> JanetVM \<Rightarrow> bool \<times> JanetVM" where
  "janet_gcunrootall root vm =
     (let (ret, rs) = gcunrootall_loop root 0 (roots vm) False in (ret, vm\<lparr>roots := rs\<rparr>))"

declare gcunroot_loop.simps [simp del] gcunrootall_loop.simps [simp del]

section \<open>Marks on blocks\<close>

definition janet_gc_mark :: "addr \<Rightarrow> JanetVM \<Rightarrow> JanetVM option" where
  "janet_gc_mark a vm = (case heap vm a of None \<Rightarrow> None
     | Some ob \<Rightarrow> Some (vm\<lparr>heap := (heap vm)(a \<mapsto> ob\<lparr>gc_reachable := True\<rparr>)\<rparr>))"

definition janet_mark_string :: "addr \<Rightarrow> JanetVM \<Rightarrow> JanetVM option" where
  "janet_mark_string str vm = janet_gc_mark str vm"

definition janet_mark_buffer :: "addr \<Rightarrow> JanetVM \<Rightarrow> JanetVM option" where
  "janet_mark_buffer buffer vm = janet_gc_mark buffer vm"

text \<open>\<open>janet_table_put(&threaded_abstracts, x, true)\<close>.\<close>

definition threaded_put :: "addr \<Rightarrow> (addr \<times> bool) list \<Rightarrow> (addr \<times> bool) list" where
  "threaded_put a t =
     (if a \<in> fst ` set t then map (\<lambda>(b, v). (b, if b = a then True else v)) t else t @ [(a, True)])"

section \<open>Function environments\<close>

fun env_frame :: "JanetStackFrame list \<Rightarrow> nat \<Rightarrow> JanetStackFrame option" where
  "env_frame [] i = None"
| "env_frame (fr # frs) i = (if fr_index fr = i then Some fr else env_frame frs i)"

definition get_fiber :: "heap \<Rightarrow> addr \<Rightarrow> JanetFiber option" where
  "get_fiber h a = (case h a of Some ob \<Rightarrow> (case gc_data ob of FiberData f \<Rightarrow> Some f | _ \<Rightarrow> None) | None \<Rightarrow> None)"

definition get_funcdef :: "heap \<Rightarrow> addr \<Rightarrow> JanetFuncDef option" where
  "get_funcdef h a = (case h a of Some ob \<Rightarrow> (case gc_data ob of FunctionData fn \<Rightarrow>
     (case fn_def fn of Some d \<Rightarrow> (case h d of Some ob \<Rightarrow>
        (case gc_data ob of FuncDefData def \<Rightarrow> Some def | _ \<Rightarrow> None) | None \<Rightarrow> None) | None \<Rightarrow> None)
     | _ \<Rightarrow> None) | None \<Rightarrow> None)"

text \<open>\<open>janet_env_valid\<close> walks the frames; one that matches makes the offset positive.\<close>

fun env_valid_loop :: "heap \<Rightarrow> addr \<Rightarrow> nat \<Rightarrow> nat \<Rightarrow> JanetStackFrame list \<Rightarrow> bool option" where
  "env_valid_loop h env real_offset len [] = Some False"
| "env_valid_loop h env real_offset len (fr # frs) =
     (if real_offset = fr_index fr \<and> fr_env fr = Some env \<and> fr_func fr \<noteq> None then do {
        def \<leftarrow> get_funcdef h (the (fr_func fr));
        if def_slotcount def = len then Some True else env_valid_loop h env real_offset len frs }
      else env_valid_loop h env real_offset len frs)"

definition janet_env_valid :: "heap \<Rightarrow> addr \<Rightarrow> JanetFuncEnv \<Rightarrow> JanetFuncEnv option" where
  "janet_env_valid h a env =
     (if env_offset env < 0 then
        (case env_as env of AsValues _ \<Rightarrow> None | AsFiber f \<Rightarrow> do {
           fiber \<leftarrow> get_fiber h f;
           found \<leftarrow> env_valid_loop h a (nat (- env_offset env)) (env_length env) (fib_frames fiber);
           Some (if found then env\<lparr>env_offset := - env_offset env\<rparr>
                 else env\<lparr>env_offset := 0, env_length := 0, env_as := AsValues []\<rparr>) })
      else Some env)"

text \<open>The values a detached environment keeps: those whose bit in the bitset is set.\<close>

definition clear_unneeded :: "u32 list option \<Rightarrow> Janet list \<Rightarrow> Janet list option" where
  "clear_unneeded bitset vmem = (case bitset of None \<Rightarrow> Some vmem
     | Some bs \<Rightarrow> if length vmem \<le> 32 * length bs
         then Some (map (\<lambda>(j, x). if bit (bs ! (j div 32)) (j mod 32) then x else JANET_NIL)
                (zip [0..<length vmem] vmem))
         else None)"

definition janet_env_detach :: "heap \<Rightarrow> addr \<Rightarrow> JanetFuncEnv \<Rightarrow> JanetFuncEnv option" where
  "janet_env_detach h a env = do {
     env \<leftarrow> janet_env_valid h a env;
     (case env_as env of AsValues _ \<Rightarrow> None | AsFiber f \<Rightarrow> do {
        fiber \<leftarrow> get_fiber h f;
        values \<leftarrow> slots (fib_data fiber) (nat (env_offset env)) (env_length env);
        frame \<leftarrow> env_frame (fib_frames fiber) (nat (env_offset env));
        func \<leftarrow> fr_func frame;
        def \<leftarrow> get_funcdef h func;
        vmem \<leftarrow> clear_unneeded (def_closure_bitset def) values;
        Some (env\<lparr>env_offset := 0, env_as := AsValues vmem\<rparr>) }) }"

definition is_finished :: "JanetFiberStatus \<Rightarrow> bool" where
  "is_finished s \<longleftrightarrow> s = JANET_STATUS_DEAD \<or> s = JANET_STATUS_ERROR \<or> s = JANET_STATUS_USER0 \<or>
     s = JANET_STATUS_USER1 \<or> s = JANET_STATUS_USER2 \<or> s = JANET_STATUS_USER3 \<or>
     s = JANET_STATUS_USER4"

definition janet_env_maybe_detach :: "heap \<Rightarrow> addr \<Rightarrow> JanetFuncEnv \<Rightarrow> JanetFuncEnv option" where
  "janet_env_maybe_detach h a env = do {
     env \<leftarrow> janet_env_valid h a env;
     if env_offset env > 0 then
       (case env_as env of AsValues _ \<Rightarrow> None | AsFiber f \<Rightarrow> do {
          fiber \<leftarrow> get_fiber h f;
          if is_finished (fib_status fiber) then janet_env_detach h a env else Some env })
     else Some env }"

text \<open>The call on a marked block; the bytes copied count towards the next collection.\<close>

definition env_maybe_detach_block :: "addr \<Rightarrow> JanetVM \<Rightarrow> JanetVM option" where
  "env_maybe_detach_block a vm = (case heap vm a of None \<Rightarrow> None | Some ob \<Rightarrow>
     (case gc_data ob of FuncEnvData env \<Rightarrow> do {
        env' \<leftarrow> janet_env_maybe_detach (heap vm) a env;
        Some (vm\<lparr>heap := (heap vm)(a \<mapsto> ob\<lparr>gc_data := FuncEnvData env'\<rparr>),
                next_collection := next_collection vm +
                  (if env_offset env \<noteq> 0 \<and> env_offset env' = 0 then 8 * env_length env' else 0)\<rparr>) }
      | _ \<Rightarrow> None))"

section \<open>Marking\<close>

text \<open>The loops over values and pairs, given the function that marks one value.\<close>

definition janet_mark_many :: "(Janet \<Rightarrow> JanetVM \<Rightarrow> JanetVM option) \<Rightarrow> Janet list \<Rightarrow> JanetVM \<Rightarrow> JanetVM option" where
  "janet_mark_many mark xs = foldM mark xs"

definition janet_mark_keys :: "(Janet \<Rightarrow> JanetVM \<Rightarrow> JanetVM option) \<Rightarrow> JanetKV list \<Rightarrow> JanetVM \<Rightarrow> JanetVM option" where
  "janet_mark_keys mark kvs = foldM (\<lambda>kv. mark (kv_key kv)) kvs"

definition janet_mark_values :: "(Janet \<Rightarrow> JanetVM \<Rightarrow> JanetVM option) \<Rightarrow> JanetKV list \<Rightarrow> JanetVM \<Rightarrow> JanetVM option" where
  "janet_mark_values mark kvs = foldM (\<lambda>kv. mark (kv_value kv)) kvs"

definition janet_mark_kvs :: "(Janet \<Rightarrow> JanetVM \<Rightarrow> JanetVM option) \<Rightarrow> JanetKV list \<Rightarrow> JanetVM \<Rightarrow> JanetVM option" where
  "janet_mark_kvs mark kvs =
     foldM (\<lambda>kv vm. Option.bind (mark (kv_key kv) vm) (mark (kv_value kv))) kvs"

text \<open>A call under \<open>if (p)\<close>.\<close>

definition if_ptr :: "(addr \<Rightarrow> JanetVM \<Rightarrow> JanetVM option) \<Rightarrow> addr option \<Rightarrow> JanetVM \<Rightarrow> JanetVM option" where
  "if_ptr f p vm = (case p of None \<Rightarrow> Some vm | Some a \<Rightarrow> f a vm)"

text \<open>
  The stack frames of a fiber from the top: the function, the environment and the slots from
  the frame's index up to the frame above, whose index bounds them (\<open>j\<close>).
\<close>

fun mark_frames ::
    "(addr \<Rightarrow> JanetVM \<Rightarrow> JanetVM option) \<Rightarrow> (addr \<Rightarrow> JanetVM \<Rightarrow> JanetVM option) \<Rightarrow>
     (Janet \<Rightarrow> JanetVM \<Rightarrow> JanetVM option) \<Rightarrow> Janet list \<Rightarrow> nat \<Rightarrow> JanetStackFrame list \<Rightarrow>
     JanetVM \<Rightarrow> JanetVM option" where
  "mark_frames mark_function mark_funcenv mark data j [] vm = Some vm"
| "mark_frames mark_function mark_funcenv mark data j (frame # frames) vm = do {
     vm \<leftarrow> if_ptr mark_function (fr_func frame) vm;
     vm \<leftarrow> if_ptr mark_funcenv (fr_env frame) vm;
     xs \<leftarrow> slots data (fr_index frame) (j - fr_index frame);
     vm \<leftarrow> janet_mark_many mark xs vm;
     mark_frames mark_function mark_funcenv mark data (fr_index frame - JANET_FRAME_SIZE) frames vm }"

text \<open>
  The mutually recursive mark functions. Each takes the record \<open>R\<close> of the functions it calls;
  \<open>mark_fns n\<close> ties the knot, with \<open>n\<close> levels of calls. \<open>goto recur\<close> (prototype chains, child
  fibers) is a call.
\<close>

record mark_calls =
  call_mark :: "Janet \<Rightarrow> JanetVM \<Rightarrow> JanetVM option"
  call_abstract :: "addr \<Rightarrow> JanetVM \<Rightarrow> JanetVM option"
  call_array :: "addr \<Rightarrow> JanetVM \<Rightarrow> JanetVM option"
  call_table :: "addr \<Rightarrow> JanetVM \<Rightarrow> JanetVM option"
  call_struct :: "addr \<Rightarrow> JanetVM \<Rightarrow> JanetVM option"
  call_tuple :: "addr \<Rightarrow> JanetVM \<Rightarrow> JanetVM option"
  call_funcenv :: "addr \<Rightarrow> JanetVM \<Rightarrow> JanetVM option"
  call_funcdef :: "addr \<Rightarrow> JanetVM \<Rightarrow> JanetVM option"
  call_function :: "addr \<Rightarrow> JanetVM \<Rightarrow> JanetVM option"
  call_fiber :: "addr \<Rightarrow> JanetVM \<Rightarrow> JanetVM option"

definition janet_mark :: "mark_calls \<Rightarrow> Janet \<Rightarrow> JanetVM \<Rightarrow> JanetVM option" where
  "janet_mark R x vm =
     (if depth vm \<noteq> 0 then do {
        vm \<leftarrow> (let vm = vm\<lparr>depth := depth vm - 1\<rparr> in case x of
            JANET_STRING a \<Rightarrow> janet_mark_string a vm
          | JANET_KEYWORD a \<Rightarrow> janet_mark_string a vm
          | JANET_SYMBOL a \<Rightarrow> janet_mark_string a vm
          | JANET_FUNCTION a \<Rightarrow> call_function R a vm
          | JANET_ARRAY a \<Rightarrow> call_array R a vm
          | JANET_TABLE a \<Rightarrow> call_table R a vm
          | JANET_STRUCT a \<Rightarrow> call_struct R a vm
          | JANET_TUPLE a \<Rightarrow> call_tuple R a vm
          | JANET_BUFFER a \<Rightarrow> janet_mark_buffer a vm
          | JANET_FIBER a \<Rightarrow> call_fiber R a vm
          | JANET_ABSTRACT a \<Rightarrow> call_abstract R a vm
          | _ \<Rightarrow> Some vm);
        Some (vm\<lparr>depth := depth vm + 1\<rparr>) }
      else Some (janet_gcroot x vm))"

definition janet_mark_abstract :: "mark_calls \<Rightarrow> addr \<Rightarrow> JanetVM \<Rightarrow> JanetVM option" where
  "janet_mark_abstract R adata vm = do {
     ob \<leftarrow> heap vm adata;
     if gc_type ob = JANET_MEMORY_THREADED_ABSTRACT
     then Some (vm\<lparr>threaded_abstracts := threaded_put adata (threaded_abstracts vm)\<rparr>)
     else if gc_reachable ob then Some vm
     else do {
       vm \<leftarrow> janet_gc_mark adata vm;
       (case gc_data ob of AbstractData gcmark _ \<Rightarrow>
          (case gcmark of None \<Rightarrow> Some vm
           | Some xs \<Rightarrow> janet_mark_many (call_mark R) xs vm)
        | _ \<Rightarrow> None) } }"

text \<open>The frame of the other functions: return if marked, else mark and go on with the contents.\<close>

definition mark_block ::
    "(JanetGCObject \<Rightarrow> JanetVM \<Rightarrow> JanetVM option) \<Rightarrow> addr \<Rightarrow> JanetVM \<Rightarrow> JanetVM option" where
  "mark_block body a vm = do {
     ob \<leftarrow> heap vm a;
     if gc_reachable ob then Some vm else Option.bind (janet_gc_mark a vm) (body ob) }"

definition janet_mark_array :: "mark_calls \<Rightarrow> addr \<Rightarrow> JanetVM \<Rightarrow> JanetVM option" where
  "janet_mark_array R = mark_block (\<lambda>ob vm. case gc_data ob of ArrayData data \<Rightarrow>
     if gc_type ob = JANET_MEMORY_ARRAY then janet_mark_many (call_mark R) data vm else Some vm
   | _ \<Rightarrow> None)"

definition janet_mark_table :: "mark_calls \<Rightarrow> addr \<Rightarrow> JanetVM \<Rightarrow> JanetVM option" where
  "janet_mark_table R = mark_block (\<lambda>ob vm. case gc_data ob of TableData table \<Rightarrow> do {
     vm \<leftarrow> (if gc_type ob = JANET_MEMORY_TABLE_WEAKK
           then janet_mark_values (call_mark R) (tbl_data table) vm
           else if gc_type ob = JANET_MEMORY_TABLE_WEAKV
           then janet_mark_keys (call_mark R) (tbl_data table) vm
           else if gc_type ob = JANET_MEMORY_TABLE
           then janet_mark_kvs (call_mark R) (tbl_data table) vm
           else Some vm);
     if_ptr (call_table R) (tbl_proto table) vm }
   | _ \<Rightarrow> None)"

definition janet_mark_struct :: "mark_calls \<Rightarrow> addr \<Rightarrow> JanetVM \<Rightarrow> JanetVM option" where
  "janet_mark_struct R = mark_block (\<lambda>ob vm. case gc_data ob of StructData data proto \<Rightarrow> do {
     vm \<leftarrow> janet_mark_kvs (call_mark R) data vm;
     if_ptr (call_struct R) proto vm }
   | _ \<Rightarrow> None)"

definition janet_mark_tuple :: "mark_calls \<Rightarrow> addr \<Rightarrow> JanetVM \<Rightarrow> JanetVM option" where
  "janet_mark_tuple R = mark_block (\<lambda>ob vm. case gc_data ob of TupleData data \<Rightarrow>
     janet_mark_many (call_mark R) data vm | _ \<Rightarrow> None)"

definition janet_mark_funcenv :: "mark_calls \<Rightarrow> addr \<Rightarrow> JanetVM \<Rightarrow> JanetVM option" where
  "janet_mark_funcenv R a = mark_block (\<lambda>_ vm. do {
     vm \<leftarrow> env_maybe_detach_block a vm;
     ob \<leftarrow> heap vm a;
     (case gc_data ob of FuncEnvData env \<Rightarrow>
        (case env_as env of
           AsFiber f \<Rightarrow> if env_offset env > 0 then call_fiber R f vm else None
         | AsValues values \<Rightarrow> if env_offset env > 0 then None else do {
             xs \<leftarrow> slots values 0 (env_length env);
             janet_mark_many (call_mark R) xs vm })
      | _ \<Rightarrow> None) }) a"

definition janet_mark_funcdef :: "mark_calls \<Rightarrow> addr \<Rightarrow> JanetVM \<Rightarrow> JanetVM option" where
  "janet_mark_funcdef R = mark_block (\<lambda>ob vm. case gc_data ob of FuncDefData def \<Rightarrow> do {
     vm \<leftarrow> janet_mark_many (call_mark R) (def_constants def) vm;
     vm \<leftarrow> foldM (call_funcdef R) (def_defs def) vm;
     vm \<leftarrow> if_ptr janet_mark_string (def_source def) vm;
     vm \<leftarrow> if_ptr janet_mark_string (def_name def) vm;
     foldM janet_mark_string (def_symbolmap def) vm }
   | _ \<Rightarrow> None)"

definition janet_mark_function :: "mark_calls \<Rightarrow> addr \<Rightarrow> JanetVM \<Rightarrow> JanetVM option" where
  "janet_mark_function R a = mark_block (\<lambda>ob vm. case gc_data ob of FunctionData func \<Rightarrow>
     (case fn_def func of None \<Rightarrow> Some vm
      | Some d \<Rightarrow> do {
          def \<leftarrow> get_funcdef (heap vm) a;
          vm \<leftarrow> (if def_environments_length def \<le> length (fn_envs func)
                then foldM (call_funcenv R) (take (def_environments_length def) (fn_envs func)) vm
                else None);
          call_funcdef R d vm })
   | _ \<Rightarrow> None) a"

definition janet_mark_fiber :: "mark_calls \<Rightarrow> addr \<Rightarrow> JanetVM \<Rightarrow> JanetVM option" where
  "janet_mark_fiber R = mark_block (\<lambda>ob vm. case gc_data ob of FiberData fiber \<Rightarrow> do {
     vm \<leftarrow> call_mark R (fib_last_value fiber) vm;
     args \<leftarrow> slots (fib_data fiber) (fib_stackstart fiber) (fib_stacktop fiber - fib_stackstart fiber);
     vm \<leftarrow> janet_mark_many (call_mark R) args vm;
     vm \<leftarrow> mark_frames (call_function R) (call_funcenv R) (call_mark R) (fib_data fiber)
            (fib_stackstart fiber - JANET_FRAME_SIZE) (fib_frames fiber) vm;
     vm \<leftarrow> if_ptr (call_table R) (fib_env fiber) vm;
     vm \<leftarrow> if_ptr (call_abstract R) (fib_supervisor_channel fiber) vm;
     vm \<leftarrow> if_ptr (call_abstract R) (fib_ev_stream fiber) vm;
     vm \<leftarrow> (case fib_ev_callback fiber of None \<Rightarrow> Some vm
           | Some xs \<Rightarrow> janet_mark_many (call_mark R) xs vm);
     if_ptr (call_fiber R) (fib_child fiber) vm }
   | _ \<Rightarrow> None)"

primrec mark_fns :: "nat \<Rightarrow> mark_calls" where
  "mark_fns 0 = \<lparr>call_mark = (\<lambda>_ _. None), call_abstract = (\<lambda>_ _. None), call_array = (\<lambda>_ _. None),
     call_table = (\<lambda>_ _. None), call_struct = (\<lambda>_ _. None), call_tuple = (\<lambda>_ _. None),
     call_funcenv = (\<lambda>_ _. None), call_funcdef = (\<lambda>_ _. None), call_function = (\<lambda>_ _. None),
     call_fiber = (\<lambda>_ _. None)\<rparr>"
| "mark_fns (Suc n) = (let R = mark_fns n in
     \<lparr>call_mark = janet_mark R, call_abstract = janet_mark_abstract R, call_array = janet_mark_array R,
     call_table = janet_mark_table R, call_struct = janet_mark_struct R, call_tuple = janet_mark_tuple R,
     call_funcenv = janet_mark_funcenv R, call_funcdef = janet_mark_funcdef R,
     call_function = janet_mark_function R, call_fiber = janet_mark_fiber R\<rparr>)"

section \<open>Marking the event loop\<close>

definition mark_task :: "mark_calls \<Rightarrow> JanetTask \<Rightarrow> JanetVM \<Rightarrow> JanetVM option" where
  "mark_task R t vm =
     Option.bind (janet_mark R (JANET_FIBER (task_fiber t)) vm) (janet_mark R (task_value t))"

definition mark_timeout :: "mark_calls \<Rightarrow> JanetTimeout \<Rightarrow> JanetVM \<Rightarrow> JanetVM option" where
  "mark_timeout R t vm =
     Option.bind (janet_mark R (JANET_FIBER (to_fiber t)) vm)
       (if_ptr (\<lambda>f. janet_mark R (JANET_FIBER f)) (to_curr_fiber t))"

text \<open>The tasks of the ring buffer \<open>spawn\<close>, whose capacity is the length of \<open>spawn_data\<close>.\<close>

definition spawn_tasks :: "JanetVM \<Rightarrow> JanetTask list" where
  "spawn_tasks vm =
     (if spawn_head vm \<le> spawn_tail vm
      then take (spawn_tail vm - spawn_head vm) (drop (spawn_head vm) (spawn_data vm))
      else drop (spawn_head vm) (spawn_data vm) @ take (spawn_tail vm) (spawn_data vm))"

definition janet_ev_mark :: "mark_calls \<Rightarrow> JanetVM \<Rightarrow> JanetVM option" where
  "janet_ev_mark R vm = do {
     vm \<leftarrow> foldM (mark_task R) (spawn_tasks vm) vm;
     foldM (mark_timeout R) (tq vm) vm }"

section \<open>Sweeping\<close>

text \<open>What \<open>janet_deinit_block\<close> does besides releasing memory the block owns.\<close>

definition janet_deinit_block :: "addr \<Rightarrow> JanetGCObject \<Rightarrow> JanetVM \<Rightarrow> JanetVM" where
  "janet_deinit_block a mem vm = (case gc_type mem of
       JANET_MEMORY_SYMBOL \<Rightarrow> vm\<lparr>symcache := filter (\<lambda>b. b \<noteq> a) (symcache vm)\<rparr>
     | JANET_MEMORY_FIBER \<Rightarrow> (case gc_data mem of
         FiberData f \<Rightarrow> if fib_ev_state f \<and> \<not> fib_in_flight f
           then vm\<lparr>listener_count := listener_count vm - 1\<rparr> else vm
       | _ \<Rightarrow> vm)
     | JANET_MEMORY_ABSTRACT \<Rightarrow> (case gc_data mem of
         AbstractData _ gc \<Rightarrow> if gc then vm\<lparr>finalized := finalized vm @ [a]\<rparr> else vm
       | _ \<Rightarrow> vm)
     | _ \<Rightarrow> vm)"

text \<open>\<open>janet_check_liveref\<close>: whether the block of a value carries the mark.\<close>

definition janet_check_liveref :: "heap \<Rightarrow> Janet \<Rightarrow> bool option" where
  "janet_check_liveref h x = (case x of
       JANET_NIL \<Rightarrow> Some True | JANET_BOOLEAN _ \<Rightarrow> Some True | JANET_NUMBER _ \<Rightarrow> Some True
     | JANET_CFUNCTION _ \<Rightarrow> Some True | JANET_POINTER _ \<Rightarrow> Some True
     | _ \<Rightarrow> map_option gc_reachable (h (janet_unwrap_pointer x)))"

fun sweep_weak_array :: "heap \<Rightarrow> Janet list \<Rightarrow> Janet list option" where
  "sweep_weak_array h [] = Some []"
| "sweep_weak_array h (x # xs) = do {
     live \<leftarrow> janet_check_liveref h x;
     ys \<leftarrow> sweep_weak_array h xs;
     Some ((if live then x else JANET_NIL) # ys) }"

text \<open>The loop over the pairs of a weak table; a dropped pair is a tombstone.\<close>

fun sweep_weak_kvs :: "heap \<Rightarrow> bool \<Rightarrow> bool \<Rightarrow> JanetKV list \<Rightarrow> (nat \<times> JanetKV list) option" where
  "sweep_weak_kvs h check_keys check_values [] = Some (0, [])"
| "sweep_weak_kvs h check_keys check_values (kv # kvs) = do {
     live_key \<leftarrow> (if check_keys then janet_check_liveref h (kv_key kv) else Some True);
     live_value \<leftarrow> (if check_values then janet_check_liveref h (kv_value kv) else Some True);
     (n, kvs') \<leftarrow> sweep_weak_kvs h check_keys check_values kvs;
     Some (if live_key \<and> live_value then (n, kv # kvs')
           else (Suc n, \<lparr>kv_key = JANET_NIL, kv_value = JANET_BOOLEAN False\<rparr> # kvs')) }"

definition sweep_weak_data :: "heap \<Rightarrow> JanetMemoryType \<Rightarrow> gc_data \<Rightarrow> gc_data option" where
  "sweep_weak_data h ty d = (case d of
       ArrayData xs \<Rightarrow> if ty = JANET_MEMORY_ARRAY_WEAK
         then map_option ArrayData (sweep_weak_array h xs) else None
     | TableData t \<Rightarrow> if ty = JANET_MEMORY_ARRAY_WEAK then None else do {
         (n, kvs) \<leftarrow> sweep_weak_kvs h
           (ty = JANET_MEMORY_TABLE_WEAKK \<or> ty = JANET_MEMORY_TABLE_WEAKKV)
           (ty = JANET_MEMORY_TABLE_WEAKV \<or> ty = JANET_MEMORY_TABLE_WEAKKV) (tbl_data t);
         Some (TableData (t\<lparr>tbl_count := tbl_count t - int n, tbl_deleted := tbl_deleted t + int n,
                            tbl_data := kvs\<rparr>)) }
     | _ \<Rightarrow> None)"

text \<open>The first loop, over the weak heap, drops dead references.\<close>

fun sweep_weak_refs :: "addr list \<Rightarrow> heap \<Rightarrow> heap option" where
  "sweep_weak_refs [] h = Some h"
| "sweep_weak_refs (current # rest) h = do {
     ob \<leftarrow> h current;
     h \<leftarrow> (if gc_reachable ob \<or> gc_disabled ob then do {
             d \<leftarrow> sweep_weak_data h (gc_type ob) (gc_data ob);
             Some (h(current \<mapsto> ob\<lparr>gc_data := d\<rparr>)) }
          else Some h);
     sweep_weak_refs rest h }"

text \<open>The second and third loop, over either heap, free the unmarked blocks.\<close>

fun sweep_blocks :: "addr list \<Rightarrow> JanetVM \<Rightarrow> (addr list \<times> JanetVM) option" where
  "sweep_blocks [] vm = Some ([], vm)"
| "sweep_blocks (current # rest) vm = do {
     ob \<leftarrow> heap vm current;
     if gc_reachable ob \<or> gc_disabled ob then do {
       (kept, vm) \<leftarrow> sweep_blocks rest
          (vm\<lparr>heap := (heap vm)(current \<mapsto> ob\<lparr>gc_reachable := False\<rparr>)\<rparr>);
       Some (current # kept, vm) }
     else do {
       let vm = janet_deinit_block current ob (vm\<lparr>block_count := block_count vm - 1\<rparr>);
       sweep_blocks rest (vm\<lparr>heap := (heap vm)(current := None)\<rparr>) } }"

text \<open>
  The last loop, over the threaded abstract values this thread knows: one that was not visited
  gives up its reference, and the last reference frees the block.
\<close>

fun sweep_threaded :: "(addr \<times> bool) list \<Rightarrow> JanetVM \<Rightarrow> ((addr \<times> bool) list \<times> JanetVM) option" where
  "sweep_threaded [] vm = Some ([], vm)"
| "sweep_threaded ((abst, visited) # items) vm =
     (if visited then do {
        (kept, vm) \<leftarrow> sweep_threaded items vm;
        Some ((abst, False) # kept, vm) }
      else do {
        let refs = threaded_refs vm abst - 1;
        let vm = vm\<lparr>threaded_refs := (threaded_refs vm)(abst := refs)\<rparr>;
        vm \<leftarrow> (if refs = 0 then do {
                ob \<leftarrow> heap vm abst;
                let vm = (case gc_data ob of AbstractData _ gc \<Rightarrow>
                     if gc then vm\<lparr>finalized := finalized vm @ [abst]\<rparr> else vm | _ \<Rightarrow> vm);
                Some (vm\<lparr>heap := (heap vm)(abst := None)\<rparr>) }
              else Some vm);
        sweep_threaded items vm })"

definition janet_sweep :: "JanetVM \<Rightarrow> JanetVM option" where
  "janet_sweep vm = do {
     h \<leftarrow> sweep_weak_refs (weak_blocks vm) (heap vm);
     (ws, vm) \<leftarrow> sweep_blocks (weak_blocks vm) (vm\<lparr>heap := h\<rparr>);
     (bs, vm) \<leftarrow> sweep_blocks (blocks vm) (vm\<lparr>weak_blocks := ws\<rparr>);
     (ts, vm) \<leftarrow> sweep_threaded (threaded_abstracts vm) (vm\<lparr>blocks := bs\<rparr>);
     Some (vm\<lparr>threaded_abstracts := ts\<rparr>) }"

section \<open>Allocation and scratch memory\<close>

definition is_weak_type :: "JanetMemoryType \<Rightarrow> bool" where
  "is_weak_type ty \<longleftrightarrow> ty \<in> {JANET_MEMORY_TABLE_WEAKK, JANET_MEMORY_TABLE_WEAKV,
     JANET_MEMORY_TABLE_WEAKKV, JANET_MEMORY_ARRAY_WEAK}"

text \<open>\<open>malloc\<close> gives a block \<open>a\<close> that is not in use; the caller fills in its contents \<open>d\<close>.\<close>

definition janet_gcalloc :: "addr \<Rightarrow> JanetMemoryType \<Rightarrow> nat \<Rightarrow> gc_data \<Rightarrow> JanetVM \<Rightarrow> JanetVM option" where
  "janet_gcalloc a ty sz d vm =
     (if heap vm a \<noteq> None then None else
      (let mem = \<lparr>gc_type = ty, gc_reachable = False, gc_disabled = False, gc_data = d\<rparr>;
           vm = vm\<lparr>heap := (heap vm)(a \<mapsto> mem), next_collection := next_collection vm + sz\<rparr>;
           vm = (if \<not> is_weak_type ty then vm\<lparr>blocks := a # blocks vm\<rparr>
                 else vm\<lparr>weak_blocks := a # weak_blocks vm\<rparr>)
       in Some (vm\<lparr>block_count := block_count vm + 1\<rparr>)))"

text \<open>
  The scratch memory as the collector sees it: \<open>scratch_mem\<close> lists the blocks, each with the
  number of its finalizer if it has one, and \<open>scratch_calls\<close> is the log of the finalizers run, with
  the pointer to the contents, which follow the header of one pointer, as the argument.
  \<^verbatim>\<open>Janet_Scratch\<close> has the blocks, the array of pointers and the loop, and shows that they agree.
\<close>

definition scratch2mem :: "addr \<Rightarrow> addr" where
  "scratch2mem s = s + 8"

definition finalizer_call :: "addr \<Rightarrow> nat option \<Rightarrow> (nat \<times> addr) list" where
  "finalizer_call s f = (case f of None \<Rightarrow> [] | Some n \<Rightarrow> [(n, scratch2mem s)])"

definition janet_free_all_scratch :: "JanetVM \<Rightarrow> JanetVM" where
  "janet_free_all_scratch vm = vm\<lparr>
     scratch_calls := scratch_calls vm @ concat (map (\<lambda>(s, f). finalizer_call s f) (scratch_mem vm)),
     scratch_mem := []\<rparr>"

section \<open>Collection\<close>

text \<open>
  The loop that takes the values spilled onto the roots off again and marks them; it is bounded
  by nothing the code shows.
\<close>

partial_function (option) drain_roots :: "mark_calls \<Rightarrow> JanetVM \<Rightarrow> JanetVM option" where
  "drain_roots R vm =
     (if orig_rootcount vm < length (roots vm) then
        Option.bind (janet_mark R (last (roots vm)) (vm\<lparr>roots := butlast (roots vm)\<rparr>))
          (drain_roots R)
      else Some vm)"

declare drain_roots.simps [code]

definition gc_fuel :: "JanetVM \<Rightarrow> nat" where
  "gc_fuel vm = 2 * (length (blocks vm) + length (weak_blocks vm) + length (threaded_abstracts vm)) + 2"

definition sizeof_JanetGCObject :: nat where
  "sizeof_JanetGCObject = 16"

definition janet_mark_phase :: "mark_calls \<Rightarrow> JanetVM \<Rightarrow> JanetVM option" where
  "janet_mark_phase R vm = do {
     let vm = vm\<lparr>orig_rootcount := length (roots vm)\<rparr>;
     vm \<leftarrow> janet_ev_mark R vm;
     fiber \<leftarrow> root_fiber vm;
     vm \<leftarrow> janet_mark_fiber R fiber vm;
     vm \<leftarrow> if_ptr (janet_mark_table R) (top_dyns vm) vm;
     vm \<leftarrow> foldM (janet_mark R) (take (orig_rootcount vm) (roots vm)) vm;
     drain_roots R vm }"

definition janet_collect :: "JanetVM \<Rightarrow> JanetVM option" where
  "janet_collect vm =
     (if gc_suspend vm \<noteq> 0 then Some vm else do {
        let R = mark_fns (gc_fuel vm);
        let vm = vm\<lparr>depth := JANET_RECURSION_GUARD, gc_mark_phase := True\<rparr>;
        let vm = (if block_count vm * 8 > gc_interval vm
                  then vm\<lparr>gc_interval := block_count vm * sizeof_JanetGCObject\<rparr> else vm);
        vm \<leftarrow> janet_mark_phase R vm;
        vm \<leftarrow> janet_sweep (vm\<lparr>gc_mark_phase := False\<rparr>);
        Some (janet_free_all_scratch (vm\<lparr>next_collection := 0\<rparr>)) })"

text \<open>\<open>gc_suspend\<close> is a C \<open>int\<close>: counting past its maximum is undefined.\<close>

definition INT_MAX :: int where "INT_MAX = 2147483647"

definition janet_gclock :: "JanetVM \<Rightarrow> (int \<times> JanetVM) option" where
  "janet_gclock vm = (if gc_suspend vm = INT_MAX then None
     else Some (gc_suspend vm, vm\<lparr>gc_suspend := gc_suspend vm + 1\<rparr>))"

definition janet_gcunlock :: "int \<Rightarrow> JanetVM \<Rightarrow> JanetVM" where
  "janet_gcunlock handle vm = vm\<lparr>gc_suspend := handle\<rparr>"

section \<open>Releasing everything\<close>

fun clear_threaded :: "(addr \<times> bool) list \<Rightarrow> JanetVM \<Rightarrow> JanetVM option" where
  "clear_threaded [] vm = Some vm"
| "clear_threaded ((abst, _) # items) vm = do {
     let refs = threaded_refs vm abst - 1;
     let vm = vm\<lparr>threaded_refs := (threaded_refs vm)(abst := refs)\<rparr>;
     vm \<leftarrow> (if refs = 0 then do {
             ob \<leftarrow> heap vm abst;
             let vm = (case gc_data ob of AbstractData _ gc \<Rightarrow>
                  if gc then vm\<lparr>finalized := finalized vm @ [abst]\<rparr> else vm | _ \<Rightarrow> vm);
             Some (vm\<lparr>heap := (heap vm)(abst := None)\<rparr>) }
           else Some vm);
     clear_threaded items vm }"

fun clear_blocks :: "addr list \<Rightarrow> JanetVM \<Rightarrow> JanetVM option" where
  "clear_blocks [] vm = Some vm"
| "clear_blocks (current # rest) vm = do {
     ob \<leftarrow> heap vm current;
     let vm = janet_deinit_block current ob vm;
     clear_blocks rest (vm\<lparr>heap := (heap vm)(current := None)\<rparr>) }"

definition janet_clear_memory :: "JanetVM \<Rightarrow> JanetVM option" where
  "janet_clear_memory vm = do {
     vm \<leftarrow> clear_threaded (threaded_abstracts vm) vm;
     vm \<leftarrow> clear_blocks (blocks vm) vm;
     Some (janet_free_all_scratch (vm\<lparr>blocks := []\<rparr>)) }"

end
