(* ===== verification/Janet_Reach.thy ===== *)
theory Janet_Reach
  imports Janet_GC
begin

text \<open>
  The specification of the collector: the references a block holds strongly (\<open>gc_refs\<close>), the
  blocks that can be reached from the roots of the VM (\<open>gc_live\<close>), and the heaps the VM builds
  (\<open>heap_ok\<close>), in which every reference leads to a block of the kind its use expects.
\<close>

section \<open>References\<close>

fun value_ref :: "Janet \<Rightarrow> addr option" where
  "value_ref (JANET_STRING a) = Some a"
| "value_ref (JANET_SYMBOL a) = Some a"
| "value_ref (JANET_KEYWORD a) = Some a"
| "value_ref (JANET_ARRAY a) = Some a"
| "value_ref (JANET_TUPLE a) = Some a"
| "value_ref (JANET_TABLE a) = Some a"
| "value_ref (JANET_STRUCT a) = Some a"
| "value_ref (JANET_BUFFER a) = Some a"
| "value_ref (JANET_FUNCTION a) = Some a"
| "value_ref (JANET_FIBER a) = Some a"
| "value_ref (JANET_ABSTRACT a) = Some a"
| "value_ref _ = None"

definition value_refs :: "Janet list \<Rightarrow> addr set" where
  "value_refs xs = (\<Union>x\<in>set xs. set_option (value_ref x))"

lemma value_refs_simps [simp]:
  "value_refs [] = {}"
  "value_refs (x # xs) = set_option (value_ref x) \<union> value_refs xs"
  "value_refs (xs @ ys) = value_refs xs \<union> value_refs ys"
  by (auto simp: value_refs_def)

text \<open>The slots of the stack frames of a fiber, and all values it keeps alive.\<close>

fun frame_values :: "Janet list \<Rightarrow> nat \<Rightarrow> JanetStackFrame list \<Rightarrow> Janet list option" where
  "frame_values data j [] = Some []"
| "frame_values data j (fr # frs) = do {
     xs \<leftarrow> slots data (fr_index fr) (j - fr_index fr);
     ys \<leftarrow> frame_values data (fr_index fr - JANET_FRAME_SIZE) frs;
     Some (xs @ ys) }"

definition fiber_values :: "JanetFiber \<Rightarrow> Janet list option" where
  "fiber_values f = do {
     args \<leftarrow> slots (fib_data f) (fib_stackstart f) (fib_stacktop f - fib_stackstart f);
     frs \<leftarrow> frame_values (fib_data f) (fib_stackstart f - JANET_FRAME_SIZE) (fib_frames f);
     Some (fib_last_value f # args @ frs @ (case fib_ev_callback f of None \<Rightarrow> [] | Some xs \<Rightarrow> xs)) }"

definition kv_values :: "JanetKV list \<Rightarrow> Janet list" where
  "kv_values kvs = concat (map (\<lambda>kv. [kv_key kv, kv_value kv]) kvs)"

text \<open>The values of a table that the table keeps alive, by its kind.\<close>

definition table_values :: "JanetMemoryType \<Rightarrow> JanetTable \<Rightarrow> Janet list" where
  "table_values ty t =
     (if ty = JANET_MEMORY_TABLE_WEAKK then map kv_value (tbl_data t)
      else if ty = JANET_MEMORY_TABLE_WEAKV then map kv_key (tbl_data t)
      else if ty = JANET_MEMORY_TABLE then kv_values (tbl_data t) else [])"

definition env_refs :: "JanetFuncEnv \<Rightarrow> addr set" where
  "env_refs env = (case env_as env of AsFiber f \<Rightarrow> {f} | AsValues xs \<Rightarrow> value_refs (take (env_length env) xs))"

text \<open>
  The strong references of a block. An environment whose fiber is finished is counted as what
  it will be detached to.
\<close>

definition fiber_refs :: "JanetFiber \<Rightarrow> addr set" where
  "fiber_refs f = (case fiber_values f of None \<Rightarrow> {} | Some xs \<Rightarrow> value_refs xs) \<union>
     (\<Union>fr\<in>set (fib_frames f). set_option (fr_func fr) \<union> set_option (fr_env fr)) \<union>
     set_option (fib_env f) \<union> set_option (fib_supervisor_channel f) \<union>
     set_option (fib_ev_stream f) \<union> set_option (fib_child f)"

definition function_envs :: "heap \<Rightarrow> addr \<Rightarrow> JanetFunction \<Rightarrow> addr list" where
  "function_envs h a fn = (case get_funcdef h a of None \<Rightarrow> []
     | Some def \<Rightarrow> take (def_environments_length def) (fn_envs fn))"

definition funcdef_refs :: "JanetFuncDef \<Rightarrow> addr set" where
  "funcdef_refs def = value_refs (def_constants def) \<union> set (def_defs def) \<union>
     set_option (def_source def) \<union> set_option (def_name def) \<union> set (def_symbolmap def)"

definition data_refs :: "heap \<Rightarrow> addr \<Rightarrow> JanetMemoryType \<Rightarrow> gc_data \<Rightarrow> addr set" where
  "data_refs h a ty d = (case d of
       StringData \<Rightarrow> {}
     | BufferData \<Rightarrow> {}
     | ArrayData xs \<Rightarrow> if ty = JANET_MEMORY_ARRAY then value_refs xs else {}
     | TupleData xs \<Rightarrow> value_refs xs
     | TableData t \<Rightarrow> value_refs (table_values ty t) \<union> set_option (tbl_proto t)
     | StructData kvs p \<Rightarrow> value_refs (kv_values kvs) \<union> set_option p
     | FiberData f \<Rightarrow> fiber_refs f
     | FunctionData fn \<Rightarrow> (case fn_def fn of None \<Rightarrow> {} | Some d \<Rightarrow> insert d (set (function_envs h a fn)))
     | FuncEnvData env \<Rightarrow> (case janet_env_maybe_detach h a env of None \<Rightarrow> {} | Some env' \<Rightarrow> env_refs env')
     | FuncDefData def \<Rightarrow> funcdef_refs def
     | AbstractData gcmark _ \<Rightarrow>
         if ty = JANET_MEMORY_THREADED_ABSTRACT then {}
         else (case gcmark of None \<Rightarrow> {} | Some xs \<Rightarrow> value_refs xs))"

definition gc_refs :: "heap \<Rightarrow> addr \<Rightarrow> addr set" where
  "gc_refs h a = (case h a of None \<Rightarrow> {} | Some ob \<Rightarrow> data_refs h a (gc_type ob) (gc_data ob))"

section \<open>Live blocks\<close>

text \<open>The blocks a collection starts from.\<close>

definition task_refs :: "JanetTask \<Rightarrow> addr set" where
  "task_refs t = insert (task_fiber t) (set_option (value_ref (task_value t)))"

definition timeout_refs :: "JanetTimeout \<Rightarrow> addr set" where
  "timeout_refs t = insert (to_fiber t) (set_option (to_curr_fiber t))"

definition gc_roots :: "JanetVM \<Rightarrow> addr set" where
  "gc_roots vm = (\<Union>t\<in>set (spawn_tasks vm). task_refs t) \<union> (\<Union>t\<in>set (tq vm). timeout_refs t) \<union>
     set_option (root_fiber vm) \<union> set_option (top_dyns vm) \<union> value_refs (roots vm)"

inductive gc_live :: "JanetVM \<Rightarrow> addr \<Rightarrow> bool" for vm :: JanetVM where
  gc_live_root: "a \<in> gc_roots vm \<Longrightarrow> gc_live vm a"
| gc_live_step: "gc_live vm a \<Longrightarrow> c \<in> gc_refs (heap vm) a \<Longrightarrow> gc_live vm c"

section \<open>Well-formed heaps\<close>

definition has_type :: "heap \<Rightarrow> JanetMemoryType set \<Rightarrow> addr \<Rightarrow> bool" where
  "has_type h tys a = (case h a of None \<Rightarrow> False | Some ob \<Rightarrow> gc_type ob \<in> tys)"

abbreviation string_types :: "JanetMemoryType set" where
  "string_types \<equiv> {JANET_MEMORY_STRING, JANET_MEMORY_SYMBOL}"

abbreviation array_types :: "JanetMemoryType set" where
  "array_types \<equiv> {JANET_MEMORY_ARRAY, JANET_MEMORY_ARRAY_WEAK}"

abbreviation table_types :: "JanetMemoryType set" where
  "table_types \<equiv> {JANET_MEMORY_TABLE, JANET_MEMORY_TABLE_WEAKK, JANET_MEMORY_TABLE_WEAKV,
     JANET_MEMORY_TABLE_WEAKKV}"

abbreviation abstract_types :: "JanetMemoryType set" where
  "abstract_types \<equiv> {JANET_MEMORY_ABSTRACT, JANET_MEMORY_THREADED_ABSTRACT}"

fun value_ok :: "heap \<Rightarrow> Janet \<Rightarrow> bool" where
  "value_ok h (JANET_STRING a) = has_type h string_types a"
| "value_ok h (JANET_SYMBOL a) = has_type h string_types a"
| "value_ok h (JANET_KEYWORD a) = has_type h string_types a"
| "value_ok h (JANET_ARRAY a) = has_type h array_types a"
| "value_ok h (JANET_TUPLE a) = has_type h {JANET_MEMORY_TUPLE} a"
| "value_ok h (JANET_TABLE a) = has_type h table_types a"
| "value_ok h (JANET_STRUCT a) = has_type h {JANET_MEMORY_STRUCT} a"
| "value_ok h (JANET_BUFFER a) = has_type h {JANET_MEMORY_BUFFER} a"
| "value_ok h (JANET_FUNCTION a) = has_type h {JANET_MEMORY_FUNCTION} a"
| "value_ok h (JANET_FIBER a) = has_type h {JANET_MEMORY_FIBER} a"
| "value_ok h (JANET_ABSTRACT a) = has_type h abstract_types a"
| "value_ok h _ = True"

definition values_ok :: "heap \<Rightarrow> Janet list \<Rightarrow> bool" where
  "values_ok h xs = list_all (value_ok h) xs"

definition ptr_ok :: "heap \<Rightarrow> JanetMemoryType set \<Rightarrow> addr option \<Rightarrow> bool" where
  "ptr_ok h tys p = (case p of None \<Rightarrow> True | Some a \<Rightarrow> has_type h tys a)"

definition fiber_ok :: "heap \<Rightarrow> JanetFiber \<Rightarrow> bool" where
  "fiber_ok h f \<longleftrightarrow> (case fiber_values f of None \<Rightarrow> False | Some xs \<Rightarrow> values_ok h xs) \<and>
     list_all (\<lambda>fr. ptr_ok h {JANET_MEMORY_FUNCTION} (fr_func fr) \<and>
                    ptr_ok h {JANET_MEMORY_FUNCENV} (fr_env fr)) (fib_frames f) \<and>
     ptr_ok h table_types (fib_env f) \<and> ptr_ok h abstract_types (fib_supervisor_channel f) \<and>
     ptr_ok h abstract_types (fib_ev_stream f) \<and> ptr_ok h {JANET_MEMORY_FIBER} (fib_child f)"

definition function_ok :: "heap \<Rightarrow> addr \<Rightarrow> JanetFunction \<Rightarrow> bool" where
  "function_ok h a fn = (case fn_def fn of None \<Rightarrow> True | Some d \<Rightarrow>
     has_type h {JANET_MEMORY_FUNCDEF} d \<and>
     (case get_funcdef h a of None \<Rightarrow> False
      | Some def \<Rightarrow> def_environments_length def \<le> length (fn_envs fn)) \<and>
     list_all (has_type h {JANET_MEMORY_FUNCENV}) (function_envs h a fn))"

text \<open>An environment must be detachable where the code detaches it, and is then on a fiber or a
  vector that holds its values.\<close>

definition env_resolved :: "heap \<Rightarrow> JanetFuncEnv \<Rightarrow> bool" where
  "env_resolved h env = (case env_as env of
       AsFiber f \<Rightarrow> env_offset env > 0 \<and> has_type h {JANET_MEMORY_FIBER} f
     | AsValues xs \<Rightarrow> env_offset env = 0 \<and> env_length env \<le> length xs \<and>
         values_ok h (take (env_length env) xs))"

definition env_ok :: "heap \<Rightarrow> addr \<Rightarrow> JanetFuncEnv \<Rightarrow> bool" where
  "env_ok h a env = (case janet_env_maybe_detach h a env of None \<Rightarrow> False
     | Some env' \<Rightarrow> env_resolved h env')"

definition funcdef_ok :: "heap \<Rightarrow> JanetFuncDef \<Rightarrow> bool" where
  "funcdef_ok h def \<longleftrightarrow> values_ok h (def_constants def) \<and>
     list_all (has_type h {JANET_MEMORY_FUNCDEF}) (def_defs def) \<and>
     ptr_ok h string_types (def_source def) \<and> ptr_ok h string_types (def_name def) \<and>
     list_all (has_type h string_types) (def_symbolmap def)"

definition data_ok :: "heap \<Rightarrow> addr \<Rightarrow> JanetMemoryType \<Rightarrow> gc_data \<Rightarrow> bool" where
  "data_ok h a ty d = (case d of
       StringData \<Rightarrow> ty \<in> string_types
     | BufferData \<Rightarrow> ty = JANET_MEMORY_BUFFER
     | ArrayData xs \<Rightarrow> ty \<in> array_types \<and> values_ok h xs
     | TupleData xs \<Rightarrow> ty = JANET_MEMORY_TUPLE \<and> values_ok h xs
     | TableData t \<Rightarrow> ty \<in> table_types \<and> values_ok h (kv_values (tbl_data t)) \<and>
         ptr_ok h table_types (tbl_proto t)
     | StructData kvs p \<Rightarrow> ty = JANET_MEMORY_STRUCT \<and> values_ok h (kv_values kvs) \<and>
         ptr_ok h {JANET_MEMORY_STRUCT} p
     | FiberData f \<Rightarrow> ty = JANET_MEMORY_FIBER \<and> fiber_ok h f
     | FunctionData fn \<Rightarrow> ty = JANET_MEMORY_FUNCTION \<and> function_ok h a fn
     | FuncEnvData env \<Rightarrow> ty = JANET_MEMORY_FUNCENV \<and> env_ok h a env
     | FuncDefData def \<Rightarrow> ty = JANET_MEMORY_FUNCDEF \<and> funcdef_ok h def
     | AbstractData gcmark _ \<Rightarrow> ty \<in> abstract_types \<and>
         (case gcmark of None \<Rightarrow> True
          | Some xs \<Rightarrow> ty = JANET_MEMORY_THREADED_ABSTRACT \<or> values_ok h xs))"

definition ob_ok :: "heap \<Rightarrow> addr \<Rightarrow> JanetGCObject \<Rightarrow> bool" where
  "ob_ok h a ob \<longleftrightarrow> \<not> gc_disabled ob \<and> data_ok h a (gc_type ob) (gc_data ob)"

definition heap_ok :: "heap \<Rightarrow> bool" where
  "heap_ok h \<longleftrightarrow> (\<forall>a. case h a of None \<Rightarrow> True | Some ob \<Rightarrow> ob_ok h a ob)"

text \<open>
  Between collections no block is marked, the two lists and the table of threaded abstract
  values hold every block once, each in the one its type belongs to, and the roots are valid.
\<close>

definition blocks_ok :: "JanetVM \<Rightarrow> bool" where
  "blocks_ok vm \<longleftrightarrow>
     distinct (blocks vm) \<and> distinct (weak_blocks vm) \<and> distinct (map fst (threaded_abstracts vm)) \<and>
     dom (heap vm) = set (blocks vm) \<union> set (weak_blocks vm) \<union> fst ` set (threaded_abstracts vm) \<and>
     (\<forall>a\<in>set (weak_blocks vm). has_type (heap vm) {ty. is_weak_type ty} a) \<and>
     (\<forall>a\<in>fst ` set (threaded_abstracts vm). has_type (heap vm) {JANET_MEMORY_THREADED_ABSTRACT} a) \<and>
     (\<forall>a\<in>set (blocks vm). \<not> has_type (heap vm)
        {ty. is_weak_type ty \<or> ty = JANET_MEMORY_THREADED_ABSTRACT} a) \<and>
     block_count vm = length (blocks vm) + length (weak_blocks vm)"

definition task_ok :: "heap \<Rightarrow> JanetTask \<Rightarrow> bool" where
  "task_ok h t \<longleftrightarrow> has_type h {JANET_MEMORY_FIBER} (task_fiber t) \<and> value_ok h (task_value t)"

definition timeout_ok :: "heap \<Rightarrow> JanetTimeout \<Rightarrow> bool" where
  "timeout_ok h t \<longleftrightarrow> has_type h {JANET_MEMORY_FIBER} (to_fiber t) \<and>
     ptr_ok h {JANET_MEMORY_FIBER} (to_curr_fiber t)"

definition roots_ok :: "JanetVM \<Rightarrow> bool" where
  "roots_ok vm \<longleftrightarrow> list_all (task_ok (heap vm)) (spawn_tasks vm) \<and>
     list_all (timeout_ok (heap vm)) (tq vm) \<and>
     root_fiber vm \<noteq> None \<and> ptr_ok (heap vm) {JANET_MEMORY_FIBER} (root_fiber vm) \<and>
     ptr_ok (heap vm) table_types (top_dyns vm) \<and> values_ok (heap vm) (roots vm)"

definition unmarked :: "heap \<Rightarrow> bool" where
  "unmarked h \<longleftrightarrow> (\<forall>a. case h a of None \<Rightarrow> True | Some ob \<Rightarrow> \<not> gc_reachable ob)"

definition vm_ok :: "JanetVM \<Rightarrow> bool" where
  "vm_ok vm \<longleftrightarrow> heap_ok (heap vm) \<and> unmarked (heap vm) \<and> blocks_ok vm \<and> roots_ok vm"

end
