(* ===== verification/Janet_Mark_Proofs.thy ===== *)
theory Janet_Mark_Proofs
  imports Janet_Reach
begin

text \<open>
  The mark phase. \<open>mark_heap h M\<close> is the heap \<open>h\<close> of the start of the collection with the
  blocks of \<open>M\<close> marked and their environments resolved. \<open>marks vm0 q u T f\<close> says of a
  function \<open>f\<close> of the mark phase that it returns, in every state reached from \<open>vm0\<close> by
  marking with at most \<open>u\<close> unmarked blocks, having marked or spilled to the roots every target
  in \<open>T\<close> and every reference of what it marked, and nothing that \<open>T\<close> does not lead to. Spilled
  values come with marks: a call at recursion depth \<open>q\<close> or more that marks nothing spills nothing.
\<close>

section \<open>States of the mark phase\<close>

definition resolve :: "heap \<Rightarrow> addr \<Rightarrow> gc_data \<Rightarrow> gc_data" where
  "resolve h a d = (case d of FuncEnvData env \<Rightarrow> FuncEnvData (the (janet_env_maybe_detach h a env)) | _ \<Rightarrow> d)"

definition mark_heap :: "heap \<Rightarrow> addr set \<Rightarrow> heap" where
  "mark_heap h M a = (case h a of None \<Rightarrow> None
     | Some ob \<Rightarrow> Some (if a \<in> M \<and> gc_type ob \<noteq> JANET_MEMORY_THREADED_ABSTRACT
         then ob\<lparr>gc_reachable := True, gc_data := resolve h a (gc_data ob)\<rparr> else ob))"

definition threaded_marks :: "(addr \<times> bool) list \<Rightarrow> addr set \<Rightarrow> (addr \<times> bool) list" where
  "threaded_marks t M = map (\<lambda>(b, v). (b, v \<or> b \<in> M)) t"

definition mark_state :: "JanetVM \<Rightarrow> nat \<Rightarrow> addr set \<Rightarrow> Janet list \<Rightarrow> nat \<Rightarrow> nat \<Rightarrow> JanetVM" where
  "mark_state vm0 d M sp k c = vm0\<lparr>heap := mark_heap (heap vm0) M,
     next_collection := k, roots := roots vm0 @ sp, root_capacity := c,
     threaded_abstracts := threaded_marks (threaded_abstracts vm0) M, depth := d\<rparr>"

definition vm_at :: "JanetVM \<Rightarrow> nat \<Rightarrow> addr set \<Rightarrow> Janet list \<Rightarrow> JanetVM \<Rightarrow> bool" where
  "vm_at vm0 d M sp vm \<longleftrightarrow> vm_ok vm0 \<and> M \<subseteq> dom (heap vm0) \<and> (\<exists>k c. vm = mark_state vm0 d M sp k c)"

lemma vm_at_sel:
  assumes "vm_at vm0 d M sp vm"
  shows "heap vm = mark_heap (heap vm0) M" "roots vm = roots vm0 @ sp" "depth vm = d"
    "threaded_abstracts vm = threaded_marks (threaded_abstracts vm0) M" "M \<subseteq> dom (heap vm0)" "vm_ok vm0"
    "spawn_tasks vm = spawn_tasks vm0" "tq vm = tq vm0" "root_fiber vm = root_fiber vm0"
    "top_dyns vm = top_dyns vm0" "orig_rootcount vm = orig_rootcount vm0"
  using assms by (auto simp: vm_at_def mark_state_def spawn_tasks_def)

lemma vm_at_eq:
  "vm_at vm0 d M sp vm \<longleftrightarrow> vm_ok vm0 \<and> M \<subseteq> dom (heap vm0) \<and>
     vm = mark_state vm0 d M sp (next_collection vm) (root_capacity vm)"
  by (auto simp: vm_at_def mark_state_def)

text \<open>The fields the mark phase changes, and their values, are all there is to compare.\<close>

lemma vm_at_step:
  assumes "vm_at vm0 d M sp vm" "M' \<subseteq> dom (heap vm0)"
    and "heap vm' = mark_heap (heap vm0) M'" "roots vm' = roots vm0 @ sp'" "depth vm' = d'"
    and "threaded_abstracts vm' = threaded_marks (threaded_abstracts vm0) M'"
    and same: "vm'\<lparr>heap := h, roots := rs, depth := n, threaded_abstracts := ts,
        next_collection := k, root_capacity := c\<rparr> =
      vm\<lparr>heap := h, roots := rs, depth := n, threaded_abstracts := ts,
        next_collection := k, root_capacity := c\<rparr>"
  shows "vm_at vm0 d' M' sp' vm'"
proof -
  obtain k' c' where v: "vm = mark_state vm0 d M sp k' c'"
    using assms(1) by (auto simp: vm_at_def)
  have "vm' = mark_state vm0 d' M' sp' (next_collection vm') (root_capacity vm')"
    using assms(3-6) same unfolding v
    by (cases vm', cases vm0) (simp add: mark_state_def)
  then show ?thesis using assms(1,2) by (simp add: vm_at_eq)
qed

lemma vm_at_finite: "vm_at vm0 d M sp vm \<Longrightarrow> finite (dom (heap vm0))"
  by (auto simp: vm_at_def vm_ok_def blocks_ok_def)

lemma vm_at_depth:
  assumes "vm_at vm0 d M sp vm" shows "vm_at vm0 d' M sp (vm\<lparr>depth := d'\<rparr>)"
  by (rule vm_at_step [OF assms]) (simp_all add: vm_at_sel [OF assms])

lemma vm_at_gcroot:
  assumes "vm_at vm0 d M sp vm" shows "vm_at vm0 d M (sp @ [x]) (janet_gcroot x vm)"
  by (rule vm_at_step [OF assms]) (simp_all add: vm_at_sel [OF assms] janet_gcroot_def Let_def)

lemma vm_at_pop:
  assumes "vm_at vm0 d M (sp @ [x]) vm"
  shows "vm_at vm0 d M sp (vm\<lparr>roots := butlast (roots vm)\<rparr>)"
  by (rule vm_at_step [OF assms]) (simp_all add: vm_at_sel [OF assms] butlast_append)

lemma vm_at_pressure:
  assumes "vm_at vm0 d M sp vm" shows "vm_at vm0 d M sp (vm\<lparr>next_collection := k\<rparr>)"
  by (rule vm_at_step [OF assms]) (simp_all add: vm_at_sel [OF assms])

section \<open>Progress\<close>

definition gc_edges :: "heap \<Rightarrow> (addr \<times> addr) set" where
  "gc_edges h = {(a, c). c \<in> gc_refs h a}"

definition progress :: "heap \<Rightarrow> addr set \<Rightarrow> addr set \<Rightarrow> addr set \<Rightarrow> Janet list \<Rightarrow> bool" where
  "progress h T M M' ext \<longleftrightarrow> M \<subseteq> M' \<and> values_ok h ext \<and> T \<subseteq> M' \<union> value_refs ext \<and>
     (\<forall>a\<in>M' - M. gc_refs h a \<subseteq> M' \<union> value_refs ext) \<and>
     (M' - M) \<union> value_refs ext \<subseteq> (gc_edges h)\<^sup>* `` T"

lemma values_ok_simps [simp]:
  "values_ok h []"
  "values_ok h (x # xs) \<longleftrightarrow> value_ok h x \<and> values_ok h xs"
  "values_ok h (xs @ ys) \<longleftrightarrow> values_ok h xs \<and> values_ok h ys"
  by (simp_all add: values_ok_def)

lemma progress_refl: "T \<subseteq> M \<Longrightarrow> progress h T M M []"
  by (auto simp: progress_def)

lemma progress_trans:
  assumes "progress h T1 M M1 e1" "progress h T2 M1 M2 e2"
  shows "progress h (T1 \<union> T2) M M2 (e1 @ e2)"
proof -
  have "gc_refs h a \<subseteq> M2 \<union> value_refs (e1 @ e2)" if "a \<in> M2 - M" for a
  proof (cases "a \<in> M1")
    case True
    then have "gc_refs h a \<subseteq> M1 \<union> value_refs e1" using assms(1) that by (simp add: progress_def)
    then show ?thesis using assms(2) by (auto simp: progress_def)
  next
    case False
    then show ?thesis using assms(2) that by (auto simp: progress_def)
  qed
  moreover have "(M2 - M) \<union> value_refs (e1 @ e2) \<subseteq> (gc_edges h)\<^sup>* `` (T1 \<union> T2)"
    using assms unfolding progress_def value_refs_simps Image_Un by blast
  ultimately show ?thesis using assms by (auto simp: progress_def)
qed

lemma progress_mark:
  assumes "progress h (gc_refs h a) (insert a M) M' ext"
  shows "progress h {a} M M' ext"
proof -
  have sub: "(gc_edges h)\<^sup>* `` gc_refs h a \<subseteq> (gc_edges h)\<^sup>* `` {a}"
    by (auto simp: gc_edges_def intro: converse_rtrancl_into_rtrancl)
  have "gc_refs h b \<subseteq> M' \<union> value_refs ext" if "b \<in> M' - M" for b
    using assms that by (cases "b = a") (auto simp: progress_def)
  moreover have "(M' - M) \<union> value_refs ext \<subseteq> (gc_edges h)\<^sup>* `` {a}"
  proof -
    have "(M' - insert a M) \<union> value_refs ext \<subseteq> (gc_edges h)\<^sup>* `` {a}"
      using assms sub unfolding progress_def by blast
    then show ?thesis by auto
  qed
  ultimately show ?thesis using assms by (auto simp: progress_def)
qed

lemma progress_spill:
  "value_ok h x \<Longrightarrow> progress h (set_option (value_ref x)) M M [x]"
  by (auto simp: progress_def)

definition unmarked_left :: "JanetVM \<Rightarrow> addr set \<Rightarrow> nat" where
  "unmarked_left vm0 M = card (dom (heap vm0) - M)"

definition marks ::
    "JanetVM \<Rightarrow> nat \<Rightarrow> nat \<Rightarrow> addr set \<Rightarrow> (JanetVM \<Rightarrow> JanetVM option) \<Rightarrow> bool" where
  "marks vm0 q u T f \<longleftrightarrow> (\<forall>d M sp vm. vm_at vm0 d M sp vm \<longrightarrow> unmarked_left vm0 M \<le> u \<longrightarrow>
     (\<exists>vm' M' ext. f vm = Some vm' \<and> vm_at vm0 d M' (sp @ ext) vm' \<and>
        progress (heap vm0) T M M' ext \<and> (q \<le> d \<longrightarrow> M' = M \<longrightarrow> ext = [])))"

lemma marksI:
  assumes "\<And>d M sp vm. vm_at vm0 d M sp vm \<Longrightarrow> unmarked_left vm0 M \<le> u \<Longrightarrow>
     \<exists>vm' M' ext. f vm = Some vm' \<and> vm_at vm0 d M' (sp @ ext) vm' \<and>
        progress (heap vm0) T M M' ext \<and> (q \<le> d \<longrightarrow> M' = M \<longrightarrow> ext = [])"
  shows "marks vm0 q u T f"
  using assms by (auto simp: marks_def)

lemma marksE:
  assumes "marks vm0 q u T f" "vm_at vm0 d M sp vm" "unmarked_left vm0 M \<le> u"
  obtains vm' M' ext where "f vm = Some vm'" "vm_at vm0 d M' (sp @ ext) vm'"
    "progress (heap vm0) T M M' ext" "q \<le> d \<longrightarrow> M' = M \<longrightarrow> ext = []"
  using assms unfolding marks_def by blast

lemma marks_Some: "marks vm0 q u {} Some"
  by (rule marksI) (auto intro!: progress_refl exI)

lemma marks_weaken: "marks vm0 0 u T f \<Longrightarrow> marks vm0 q u T f"
  unfolding marks_def by blast

lemma unmarked_left_mono:
  "finite (dom (heap vm0)) \<Longrightarrow> M \<subseteq> M' \<Longrightarrow> unmarked_left vm0 M' \<le> unmarked_left vm0 M"
  unfolding unmarked_left_def by (intro card_mono) auto

lemma unmarked_left_insert:
  "finite (dom (heap vm0)) \<Longrightarrow> a \<in> dom (heap vm0) \<Longrightarrow> a \<notin> M \<Longrightarrow>
   Suc (unmarked_left vm0 (insert a M)) = unmarked_left vm0 M"
  unfolding unmarked_left_def by (metis DiffI Diff_insert card_Suc_Diff1 finite_Diff)

lemma marks_bind:
  assumes f: "marks vm0 q u T1 f" and g: "marks vm0 q u T2 g"
  shows "marks vm0 q u (T1 \<union> T2) (\<lambda>vm. Option.bind (f vm) g)"
proof (rule marksI)
  fix d M sp vm assume at: "vm_at vm0 d M sp vm" and u: "unmarked_left vm0 M \<le> u"
  from marksE [OF f at u] obtain vm1 M1 e1 where 1: "f vm = Some vm1" "vm_at vm0 d M1 (sp @ e1) vm1"
    "progress (heap vm0) T1 M M1 e1" "q \<le> d \<longrightarrow> M1 = M \<longrightarrow> e1 = []" .
  then have sub: "M \<subseteq> M1" by (simp add: progress_def)
  then have "unmarked_left vm0 M1 \<le> u" using unmarked_left_mono [OF vm_at_finite [OF at]] u le_trans by blast
  from marksE [OF g 1(2) this] obtain vm2 M2 e2 where 2: "g vm1 = Some vm2"
    "vm_at vm0 d M2 ((sp @ e1) @ e2) vm2" "progress (heap vm0) T2 M1 M2 e2"
    "q \<le> d \<longrightarrow> M2 = M1 \<longrightarrow> e2 = []" .
  have "M1 \<subseteq> M2" using 2(3) by (simp add: progress_def)
  with sub have "q \<le> d \<longrightarrow> M2 = M \<longrightarrow> e1 @ e2 = []" using 1(4) 2(4) by auto
  then show "\<exists>vm' M' ext. Option.bind (f vm) g = Some vm' \<and> vm_at vm0 d M' (sp @ ext) vm' \<and>
      progress (heap vm0) (T1 \<union> T2) M M' ext \<and> (q \<le> d \<longrightarrow> M' = M \<longrightarrow> ext = [])"
    using 1(1) 2(1,2) progress_trans [OF 1(3) 2(3)] by auto
qed

lemma marks_foldM:
  "(\<And>x. x \<in> set xs \<Longrightarrow> marks vm0 q u (T x) (f x)) \<Longrightarrow> marks vm0 q u (\<Union>x\<in>set xs. T x) (foldM f xs)"
proof (induction xs)
  case Nil
  have "foldM f [] = Some" by (rule ext) simp
  then show ?case using marks_Some by simp
next
  case (Cons x xs)
  have "foldM f (x # xs) = (\<lambda>vm. Option.bind (f x vm) (foldM f xs))" by (rule ext) simp
  moreover have "marks vm0 q u (T x \<union> (\<Union>x\<in>set xs. T x)) (\<lambda>vm. Option.bind (f x vm) (foldM f xs))"
    by (rule marks_bind) (use Cons in auto)
  ultimately show ?case by simp
qed

lemma marks_if_ptr:
  "(\<And>a. p = Some a \<Longrightarrow> marks vm0 q u {a} (f a)) \<Longrightarrow> marks vm0 q u (set_option p) (if_ptr f p)"
proof (cases p)
  case None
  have "if_ptr f None = Some" by (rule ext) (simp add: if_ptr_def)
  then show ?thesis using marks_Some None by simp
next
  case (Some a)
  have "if_ptr f (Some a) = f a" by (rule ext) (simp add: if_ptr_def)
  moreover assume "\<And>a. p = Some a \<Longrightarrow> marks vm0 q u {a} (f a)"
  ultimately show ?thesis using Some by simp
qed

section \<open>Marking one block\<close>

lemma mark_heap_None [simp]: "mark_heap h M a = None \<longleftrightarrow> h a = None"
  by (simp add: mark_heap_def split: option.splits)

lemma mark_heap_Some:
  "h a = Some ob \<Longrightarrow> mark_heap h M a = Some (if a \<in> M \<and> gc_type ob \<noteq> JANET_MEMORY_THREADED_ABSTRACT
     then ob\<lparr>gc_reachable := True, gc_data := resolve h a (gc_data ob)\<rparr> else ob)"
  by (simp add: mark_heap_def)

lemma mark_heap_empty [simp]: "mark_heap h {} = h"
  by (rule ext) (simp add: mark_heap_def split: option.splits)

text \<open>Resolving environments reads only fibers and function definitions.\<close>

lemma env_valid_loop_cong:
  assumes "get_funcdef h' = get_funcdef h" shows "env_valid_loop h' = env_valid_loop h"
proof (intro ext)
  fix a i n frs show "env_valid_loop h' a i n frs = env_valid_loop h a i n frs"
  proof (induction frs)
    case (Cons fr frs)
    show ?case unfolding env_valid_loop.simps assms Cons.IH by (rule refl)
  qed simp
qed

lemma env_maybe_detach_cong:
  assumes "get_fiber h' = get_fiber h" "get_funcdef h' = get_funcdef h"
  shows "janet_env_maybe_detach h' a env = janet_env_maybe_detach h a env"
  unfolding janet_env_maybe_detach_def janet_env_valid_def janet_env_detach_def assms
    env_valid_loop_cong [OF assms(2)] by (rule refl)

definition same_code :: "heap \<Rightarrow> heap \<Rightarrow> bool" where
  "same_code h h' \<longleftrightarrow> (\<forall>a. case h a of None \<Rightarrow> h' a = None
     | Some ob \<Rightarrow> (\<exists>ob'. h' a = Some ob' \<and> (gc_data ob' = gc_data ob \<or>
          (\<exists>e e'. gc_data ob = FuncEnvData e \<and> gc_data ob' = FuncEnvData e'))))"

lemma same_code_get:
  assumes "same_code h h'"
  shows "get_fiber h' = get_fiber h" "get_funcdef h' = get_funcdef h"
proof -
  have *: "(case h' a of None \<Rightarrow> z | Some ob \<Rightarrow> k (gc_data ob)) = (case h a of None \<Rightarrow> z | Some ob \<Rightarrow> k (gc_data ob))"
    if "\<And>e e'. k (FuncEnvData e) = k (FuncEnvData e')" for a and z :: "'z" and k
  proof (cases "h a")
    case None
    with spec [OF assms [unfolded same_code_def], of a] show ?thesis by simp
  next
    case (Some ob)
    with spec [OF assms [unfolded same_code_def], of a]
    obtain ob' where ob': "h' a = Some ob'" and "gc_data ob' = gc_data ob \<or>
        (\<exists>e e'. gc_data ob = FuncEnvData e \<and> gc_data ob' = FuncEnvData e')"
      by auto
    then have "k (gc_data ob') = k (gc_data ob)"
    proof (elim disjE exE conjE)
      fix e e' assume "gc_data ob = FuncEnvData e" "gc_data ob' = FuncEnvData e'"
      then show ?thesis using that [of e' e] by simp
    qed simp
    then show ?thesis using Some ob' by simp
  qed
  show "get_fiber h' = get_fiber h"
    unfolding get_fiber_def by (rule ext, rule *) simp
  have inner: "(case h' d of None \<Rightarrow> None | Some ob \<Rightarrow>
      (case gc_data ob of FuncDefData def \<Rightarrow> Some def | _ \<Rightarrow> None)) =
    (case h d of None \<Rightarrow> None | Some ob \<Rightarrow>
      (case gc_data ob of FuncDefData def \<Rightarrow> Some def | _ \<Rightarrow> None))" for d
    by (rule *) simp
  show "get_funcdef h' = get_funcdef h"
    unfolding get_funcdef_def inner by (rule ext, rule *) simp
qed

lemma same_code_mark: "same_code h (mark_heap h M)"
  by (auto simp: same_code_def mark_heap_def resolve_def split: option.splits gc_data.splits)

lemma same_code_upd:
  "same_code h h' \<Longrightarrow> h a = Some ob \<Longrightarrow> same_code h (h'(a \<mapsto> ob\<lparr>gc_reachable := b\<rparr>))"
  unfolding same_code_def
proof (intro allI)
  fix c
  assume all: "\<forall>a. case h a of None \<Rightarrow> h' a = None
     | Some ob \<Rightarrow> (\<exists>ob'. h' a = Some ob' \<and> (gc_data ob' = gc_data ob \<or>
          (\<exists>e e'. gc_data ob = FuncEnvData e \<and> gc_data ob' = FuncEnvData e')))" and a: "h a = Some ob"
  from spec [OF all, of c] a show "case h c of None \<Rightarrow> (h'(a \<mapsto> ob\<lparr>gc_reachable := b\<rparr>)) c = None
     | Some ob2 \<Rightarrow> (\<exists>ob'. (h'(a \<mapsto> ob\<lparr>gc_reachable := b\<rparr>)) c = Some ob' \<and>
          (gc_data ob' = gc_data ob2 \<or>
          (\<exists>e e'. gc_data ob2 = FuncEnvData e \<and> gc_data ob' = FuncEnvData e')))"
    by (cases "c = a"; cases "h c") simp_all
qed

lemmas get_mark_heap [simp] = same_code_get [OF same_code_mark]

lemma marks_cong:
  assumes "marks vm0 q u T g" and "\<And>d M sp vm. vm_at vm0 d M sp vm \<Longrightarrow> f vm = g vm"
  shows "marks vm0 q u T f"
  using assms unfolding marks_def by metis

lemma not_threaded:
  assumes "vm_ok vm0" "heap vm0 a = Some ob" "gc_type ob \<noteq> JANET_MEMORY_THREADED_ABSTRACT"
  shows "a \<notin> fst ` set (threaded_abstracts vm0)"
  using assms by (auto simp: vm_ok_def blocks_ok_def has_type_def)

lemma threaded_marks_insert:
  "a \<notin> fst ` set t \<Longrightarrow> threaded_marks t (insert a M) = threaded_marks t M"
  by (force simp: threaded_marks_def)

lemma mark_heap_insert:
  assumes "h a = Some ob" "gc_type ob \<noteq> JANET_MEMORY_THREADED_ABSTRACT"
  shows "mark_heap h (insert a M) =
    (mark_heap h M)(a \<mapsto> ob\<lparr>gc_reachable := True, gc_data := resolve h a (gc_data ob)\<rparr>)"
  using assms by (auto simp: mark_heap_def fun_eq_iff split: option.splits)

lemma marks_block_start:
  assumes a: "heap vm0 a = Some ob" "gc_type ob \<noteq> JANET_MEMORY_THREADED_ABSTRACT"
    and start: "\<And>d M sp vm vm1. vm_at vm0 d M sp vm \<Longrightarrow> a \<notin> M \<Longrightarrow> janet_gc_mark a vm = Some vm1 \<Longrightarrow>
      \<exists>vm2. body ob vm1 = rest vm2 \<and> vm_at vm0 d (insert a M) sp vm2"
    and rest: "\<And>v. u = Suc v \<Longrightarrow> marks vm0 (Suc 0) v (gc_refs (heap vm0) a) rest"
  shows "marks vm0 0 u {a} (mark_block body a)"
proof (rule marksI)
  fix d M sp vm assume at: "vm_at vm0 d M sp vm" and u: "unmarked_left vm0 M \<le> u"
  let ?P = "\<lambda>vm' M' ext. mark_block body a vm = Some vm' \<and> vm_at vm0 d M' (sp @ ext) vm' \<and>
    progress (heap vm0) {a} M M' ext \<and> (0 \<le> d \<longrightarrow> M' = M \<longrightarrow> ext = [])"
  show "\<exists>vm' M' ext. ?P vm' M' ext"
  proof (cases "a \<in> M")
    case True
    have "?P vm M []" using at a True
      by (auto simp: mark_block_def vm_at_sel(1) mark_heap_Some intro: progress_refl)
    then show ?thesis by blast
  next
    case False
    have h: "heap vm a = Some ob" using a False by (simp add: vm_at_sel(1) [OF at] mark_heap_Some)
    have unm: "\<not> gc_reachable ob" using at a unfolding vm_at_def vm_ok_def unmarked_def
      by (metis option.simps(5))
    from h obtain vm1 where vm1: "janet_gc_mark a vm = Some vm1" by (auto simp: janet_gc_mark_def)
    from start [OF at False vm1] obtain vm2 where vm2: "body ob vm1 = rest vm2"
      "vm_at vm0 d (insert a M) sp vm2" by blast
    have left: "Suc (unmarked_left vm0 (insert a M)) = unmarked_left vm0 M"
      using unmarked_left_insert vm_at_finite [OF at] a(1) False by blast
    with u obtain v where v: "u = Suc v" by (cases u) auto
    with u left have le: "unmarked_left vm0 (insert a M) \<le> v" by simp
    from marksE [OF rest [OF v] vm2(2) le] obtain vm' M' ext where r: "rest vm2 = Some vm'"
      "vm_at vm0 d M' (sp @ ext) vm'" "progress (heap vm0) (gc_refs (heap vm0) a) (insert a M) M' ext" .
    then have "a \<in> M'" by (auto simp: progress_def)
    then have "?P vm' M' ext"
      using r vm1 vm2 h unm False by (auto simp: mark_block_def intro: progress_mark)
    then show ?thesis by blast
  qed
qed

lemma resolve_id: "(\<forall>env. d \<noteq> FuncEnvData env) \<Longrightarrow> resolve h a d = d"
  by (simp add: resolve_def split: gc_data.splits)

lemma gc_mark_at:
  assumes at: "vm_at vm0 d M sp vm" and a: "heap vm0 a = Some ob"
    "gc_type ob \<noteq> JANET_MEMORY_THREADED_ABSTRACT" "\<forall>env. gc_data ob \<noteq> FuncEnvData env"
  shows "\<exists>vm'. janet_gc_mark a vm = Some vm' \<and> vm_at vm0 d (insert a M) sp vm'"
proof -
  obtain ob' where ob': "heap vm a = Some ob'" "ob'\<lparr>gc_reachable := True\<rparr> = ob\<lparr>gc_reachable := True\<rparr>"
    using a by (auto simp: vm_at_sel(1) [OF at] mark_heap_Some resolve_id)
  have "vm_at vm0 d (insert a M) sp (vm\<lparr>heap := (heap vm)(a \<mapsto> ob'\<lparr>gc_reachable := True\<rparr>)\<rparr>)"
    using a vm_at_sel [OF at]
    by (intro vm_at_step [OF at])
      (auto simp: mark_heap_insert [of "heap vm0", OF a(1,2)] ob'(2) resolve_id threaded_marks_insert not_threaded)
  then show ?thesis using ob' by (simp add: janet_gc_mark_def)
qed

lemma marks_block:
  assumes a: "heap vm0 a = Some ob" "gc_type ob \<noteq> JANET_MEMORY_THREADED_ABSTRACT"
    "\<forall>env. gc_data ob \<noteq> FuncEnvData env"
    and body: "\<And>v. u = Suc v \<Longrightarrow> marks vm0 (Suc 0) v (gc_refs (heap vm0) a) (body ob)"
  shows "marks vm0 0 u {a} (mark_block body a)"
  by (rule marks_block_start [where rest = "body ob", OF a(1,2)])
    (use body gc_mark_at [OF _ a] in fastforce)+

lemma marks_string:
  assumes "vm_ok vm0" "has_type (heap vm0) {JANET_MEMORY_STRING, JANET_MEMORY_SYMBOL, JANET_MEMORY_BUFFER} a"
  shows "marks vm0 q u {a} (janet_gc_mark a)"
proof (rule marksI)
  fix d M sp vm assume at: "vm_at vm0 d M sp vm"
  from assms(2) obtain ob where a: "heap vm0 a = Some ob"
    "gc_type ob \<in> {JANET_MEMORY_STRING, JANET_MEMORY_SYMBOL, JANET_MEMORY_BUFFER}"
    by (auto simp: has_type_def split: option.splits)
  then have d: "data_ok (heap vm0) a (gc_type ob) (gc_data ob)"
    using assms(1) unfolding vm_ok_def heap_ok_def ob_ok_def by (metis option.simps(5))
  then have e: "gc_refs (heap vm0) a = {}" "\<forall>env. gc_data ob \<noteq> FuncEnvData env"
    using a by (auto simp: data_ok_def gc_refs_def data_refs_def split: gc_data.splits)
  from gc_mark_at [OF at a(1) _ e(2)] a(2) obtain vm' where
    "janet_gc_mark a vm = Some vm'" "vm_at vm0 d (insert a M) sp vm'" by auto
  moreover have "progress (heap vm0) {a} M (insert a M) []"
    by (rule progress_mark) (simp add: e progress_refl)
  ultimately show "\<exists>vm' M' ext. janet_gc_mark a vm = Some vm' \<and> vm_at vm0 d M' (sp @ ext) vm' \<and>
      progress (heap vm0) {a} M M' ext \<and> (q \<le> d \<longrightarrow> M' = M \<longrightarrow> ext = [])"
    by (metis append_Nil2)
qed

section \<open>The mark functions\<close>

text \<open>What one level of calls needs of the next.\<close>

definition value_calls :: "JanetVM \<Rightarrow> nat \<Rightarrow> mark_calls \<Rightarrow> bool" where
  "value_calls vm0 v R \<longleftrightarrow>
     (\<forall>x. value_ok (heap vm0) x \<longrightarrow> marks vm0 (Suc 0) v (set_option (value_ref x)) (call_mark R x))"

definition block_call ::
    "JanetVM \<Rightarrow> nat \<Rightarrow> JanetMemoryType set \<Rightarrow> (addr \<Rightarrow> JanetVM \<Rightarrow> JanetVM option) \<Rightarrow> bool" where
  "block_call vm0 v tys f \<longleftrightarrow> (\<forall>a. has_type (heap vm0) tys a \<longrightarrow> marks vm0 0 v {a} (f a))"

definition block_calls :: "JanetVM \<Rightarrow> nat \<Rightarrow> mark_calls \<Rightarrow> bool" where
  "block_calls vm0 v R \<longleftrightarrow>
     block_call vm0 v abstract_types (call_abstract R) \<and> block_call vm0 v array_types (call_array R) \<and>
     block_call vm0 v table_types (call_table R) \<and>
     block_call vm0 v {JANET_MEMORY_STRUCT} (call_struct R) \<and>
     block_call vm0 v {JANET_MEMORY_TUPLE} (call_tuple R) \<and>
     block_call vm0 v {JANET_MEMORY_FUNCENV} (call_funcenv R) \<and>
     block_call vm0 v {JANET_MEMORY_FUNCDEF} (call_funcdef R) \<and>
     block_call vm0 v {JANET_MEMORY_FUNCTION} (call_function R) \<and>
     block_call vm0 v {JANET_MEMORY_FIBER} (call_fiber R)"

named_theorems call_rules \<open>what a call marks\<close>

lemma value_call [call_rules]:
  "value_calls vm0 v R \<Longrightarrow> value_ok (heap vm0) x \<Longrightarrow>
   marks vm0 (Suc 0) v (set_option (value_ref x)) (call_mark R x)"
  by (simp add: value_calls_def)

lemma block_callD [call_rules]:
  "block_call vm0 v tys f \<Longrightarrow> has_type (heap vm0) tys a \<Longrightarrow> marks vm0 (Suc 0) v {a} (f a)"
  by (simp add: block_call_def marks_weaken)

lemma ptr_call [call_rules]:
  "block_call vm0 v tys f \<Longrightarrow> ptr_ok (heap vm0) tys p \<Longrightarrow> marks vm0 (Suc 0) v (set_option p) (if_ptr f p)"
  by (rule marks_if_ptr) (simp add: ptr_ok_def block_callD)

lemma list_call:
  "block_call vm0 v tys f \<Longrightarrow> list_all (has_type (heap vm0) tys) as \<Longrightarrow> marks vm0 (Suc 0) v (set as) (foldM f as)"
  using marks_foldM [of as vm0 "Suc 0" v "\<lambda>a. {a}" f] by (auto simp: list_all_iff block_callD)

lemma many_call:
  assumes "value_calls vm0 v R" "values_ok (heap vm0) xs"
  shows "marks vm0 (Suc 0) v (value_refs xs) (janet_mark_many (call_mark R) xs)"
  unfolding janet_mark_many_def value_refs_def
  using assms by (intro marks_foldM value_call) (auto simp: values_ok_def list_all_iff)

lemma values_ok_map: "values_ok h (map f xs) \<longleftrightarrow> list_all (\<lambda>x. value_ok h (f x)) xs"
  by (simp add: values_ok_def list.pred_map comp_def)

lemma value_refs_map: "value_refs (map f xs) = (\<Union>x\<in>set xs. set_option (value_ref (f x)))"
  by (simp add: value_refs_def)

lemma keys_call:
  assumes "value_calls vm0 v R" "values_ok (heap vm0) (map kv_key kvs)"
  shows "marks vm0 (Suc 0) v (value_refs (map kv_key kvs)) (janet_mark_keys (call_mark R) kvs)"
  unfolding janet_mark_keys_def value_refs_map
  using assms by (intro marks_foldM value_call) (auto simp: values_ok_map list_all_iff)

lemma values_call:
  assumes "value_calls vm0 v R" "values_ok (heap vm0) (map kv_value kvs)"
  shows "marks vm0 (Suc 0) v (value_refs (map kv_value kvs)) (janet_mark_values (call_mark R) kvs)"
  unfolding janet_mark_values_def value_refs_map
  using assms by (intro marks_foldM value_call) (auto simp: values_ok_map list_all_iff)

lemma values_ok_kvs:
  "values_ok h (kv_values kvs) \<longleftrightarrow> list_all (\<lambda>kv. value_ok h (kv_key kv) \<and> value_ok h (kv_value kv)) kvs"
  by (induction kvs) (simp_all add: kv_values_def)

lemma value_refs_kvs: "value_refs (kv_values kvs) =
    (\<Union>kv\<in>set kvs. set_option (value_ref (kv_key kv)) \<union> set_option (value_ref (kv_value kv)))"
  by (induction kvs) (auto simp: kv_values_def)

lemma kvs_call:
  assumes "value_calls vm0 v R" "values_ok (heap vm0) (kv_values kvs)"
  shows "marks vm0 (Suc 0) v (value_refs (kv_values kvs)) (janet_mark_kvs (call_mark R) kvs)"
  unfolding janet_mark_kvs_def value_refs_kvs
  using assms by (intro marks_foldM marks_bind value_call) (auto simp: values_ok_kvs list_all_iff)

lemma vm_ok_data:
  "vm_ok vm0 \<Longrightarrow> heap vm0 a = Some ob \<Longrightarrow> data_ok (heap vm0) a (gc_type ob) (gc_data ob)"
  unfolding vm_ok_def heap_ok_def ob_ok_def by (metis option.simps(5))

lemma has_type_Some:
  "has_type h tys a \<Longrightarrow> (\<And>ob. h a = Some ob \<Longrightarrow> gc_type ob \<in> tys \<Longrightarrow> P) \<Longrightarrow> P"
  by (auto simp: has_type_def split: option.splits)

lemma marks_eq: "marks vm0 q u T f \<Longrightarrow> T = T' \<Longrightarrow> f = f' \<Longrightarrow> marks vm0 q u T' f'"
  by simp

lemma array_call:
  assumes "vm_ok vm0" "\<And>v. u = Suc v \<Longrightarrow> value_calls vm0 v R"
  shows "block_call vm0 u array_types (janet_mark_array R)"
  unfolding block_call_def janet_mark_array_def
proof (intro allI impI)
  fix a assume "has_type (heap vm0) array_types a"
  then obtain ob where a: "heap vm0 a = Some ob" "gc_type ob \<in> array_types" by (rule has_type_Some)
  with vm_ok_data [OF assms(1) a(1)] obtain xs where d: "gc_data ob = ArrayData xs" "values_ok (heap vm0) xs"
    by (auto simp: data_ok_def split: gc_data.splits)
  show "marks vm0 0 u {a} (mark_block (\<lambda>ob vm. case gc_data ob of ArrayData data \<Rightarrow>
     if gc_type ob = JANET_MEMORY_ARRAY then janet_mark_many (call_mark R) data vm else Some vm
   | _ \<Rightarrow> None) a)"
    using a d many_call [OF assms(2)]
    by (intro marks_block) (auto simp: gc_refs_def data_refs_def marks_Some)
qed

lemma tuple_call:
  assumes "vm_ok vm0" "\<And>v. u = Suc v \<Longrightarrow> value_calls vm0 v R"
  shows "block_call vm0 u {JANET_MEMORY_TUPLE} (janet_mark_tuple R)"
  unfolding block_call_def janet_mark_tuple_def
proof (intro allI impI)
  fix a assume "has_type (heap vm0) {JANET_MEMORY_TUPLE} a"
  then obtain ob where a: "heap vm0 a = Some ob" "gc_type ob \<in> {JANET_MEMORY_TUPLE}" by (rule has_type_Some)
  with vm_ok_data [OF assms(1) a(1)] obtain xs where d: "gc_data ob = TupleData xs" "values_ok (heap vm0) xs"
    by (auto simp: data_ok_def split: gc_data.splits)
  show "marks vm0 0 u {a} (mark_block (\<lambda>ob vm. case gc_data ob of TupleData data \<Rightarrow>
     janet_mark_many (call_mark R) data vm | _ \<Rightarrow> None) a)"
    using a d many_call [OF assms(2)]
    by (intro marks_block) (auto simp: gc_refs_def data_refs_def)
qed

lemma struct_call:
  assumes "vm_ok vm0" "\<And>v. u = Suc v \<Longrightarrow> value_calls vm0 v R"
    and "\<And>v. u = Suc v \<Longrightarrow> block_call vm0 v {JANET_MEMORY_STRUCT} (call_struct R)"
  shows "block_call vm0 u {JANET_MEMORY_STRUCT} (janet_mark_struct R)"
  unfolding block_call_def janet_mark_struct_def
proof (intro allI impI)
  fix a assume "has_type (heap vm0) {JANET_MEMORY_STRUCT} a"
  then obtain ob where a: "heap vm0 a = Some ob" "gc_type ob \<in> {JANET_MEMORY_STRUCT}" by (rule has_type_Some)
  with vm_ok_data [OF assms(1) a(1)] obtain kvs p where d: "gc_data ob = StructData kvs p"
    "values_ok (heap vm0) (kv_values kvs)" "ptr_ok (heap vm0) {JANET_MEMORY_STRUCT} p"
    by (auto simp: data_ok_def split: gc_data.splits)
  show "marks vm0 0 u {a} (mark_block (\<lambda>ob vm. case gc_data ob of StructData data proto \<Rightarrow> do {
     vm \<leftarrow> janet_mark_kvs (call_mark R) data vm;
     if_ptr (call_struct R) proto vm }
   | _ \<Rightarrow> None) a)"
    using a d marks_bind [OF kvs_call [OF assms(2) d(2)] ptr_call [OF assms(3) d(3)]]
    by (intro marks_block) (auto simp: gc_refs_def data_refs_def)
qed

lemma table_call:
  assumes "vm_ok vm0" "\<And>v. u = Suc v \<Longrightarrow> value_calls vm0 v R"
    and "\<And>v. u = Suc v \<Longrightarrow> block_call vm0 v table_types (call_table R)"
  shows "block_call vm0 u table_types (janet_mark_table R)"
  unfolding block_call_def janet_mark_table_def
proof (intro allI impI)
  fix a assume "has_type (heap vm0) table_types a"
  then obtain ob where a: "heap vm0 a = Some ob" "gc_type ob \<in> table_types" by (rule has_type_Some)
  with vm_ok_data [OF assms(1) a(1)] obtain t where d: "gc_data ob = TableData t"
    "values_ok (heap vm0) (kv_values (tbl_data t))" "ptr_ok (heap vm0) table_types (tbl_proto t)"
    by (auto simp: data_ok_def split: gc_data.splits)
  have kv: "values_ok (heap vm0) (map kv_key (tbl_data t))" "values_ok (heap vm0) (map kv_value (tbl_data t))"
    using d(2) by (auto simp: values_ok_kvs values_ok_map list_all_iff)
  have data: "marks vm0 (Suc 0) v (value_refs (table_values (gc_type ob) t))
      (\<lambda>vm. if gc_type ob = JANET_MEMORY_TABLE_WEAKK
           then janet_mark_values (call_mark R) (tbl_data t) vm
           else if gc_type ob = JANET_MEMORY_TABLE_WEAKV
           then janet_mark_keys (call_mark R) (tbl_data t) vm
           else if gc_type ob = JANET_MEMORY_TABLE
           then janet_mark_kvs (call_mark R) (tbl_data t) vm
           else Some vm)" if "u = Suc v" for v
    using values_call [OF assms(2) kv(2)] keys_call [OF assms(2) kv(1)] kvs_call [OF assms(2) d(2)] that
    by (simp add: table_values_def marks_Some)
  show "marks vm0 0 u {a} (mark_block (\<lambda>ob vm. case gc_data ob of TableData table \<Rightarrow> do {
     vm \<leftarrow> (if gc_type ob = JANET_MEMORY_TABLE_WEAKK
           then janet_mark_values (call_mark R) (tbl_data table) vm
           else if gc_type ob = JANET_MEMORY_TABLE_WEAKV
           then janet_mark_keys (call_mark R) (tbl_data table) vm
           else if gc_type ob = JANET_MEMORY_TABLE
           then janet_mark_kvs (call_mark R) (tbl_data table) vm
           else Some vm);
     if_ptr (call_table R) (tbl_proto table) vm }
   | _ \<Rightarrow> None) a)"
  proof (rule marks_block [OF a(1)])
    show "gc_type ob \<noteq> JANET_MEMORY_THREADED_ABSTRACT" "\<forall>env. gc_data ob \<noteq> FuncEnvData env"
      using a(2) d(1) by auto
    fix v assume "u = Suc v"
    from marks_bind [OF data [OF this] ptr_call [OF assms(3) [OF this] d(3)]]
    show "marks vm0 (Suc 0) v (gc_refs (heap vm0) a) ((\<lambda>ob vm. case gc_data ob of TableData table \<Rightarrow> do {
     vm \<leftarrow> (if gc_type ob = JANET_MEMORY_TABLE_WEAKK
           then janet_mark_values (call_mark R) (tbl_data table) vm
           else if gc_type ob = JANET_MEMORY_TABLE_WEAKV
           then janet_mark_keys (call_mark R) (tbl_data table) vm
           else if gc_type ob = JANET_MEMORY_TABLE
           then janet_mark_kvs (call_mark R) (tbl_data table) vm
           else Some vm);
     if_ptr (call_table R) (tbl_proto table) vm }
   | _ \<Rightarrow> None) ob)"
      by (simp add: d(1) gc_refs_def data_refs_def a(1) cong: if_cong)
  qed
qed

lemma threaded_put_marks:
  assumes "a \<in> fst ` set t"
  shows "threaded_put a (threaded_marks t M) = threaded_marks t (insert a M)"
proof -
  have "fst ` set (threaded_marks t M) = fst ` set t" by (force simp: threaded_marks_def)
  with assms show ?thesis by (auto simp: threaded_put_def threaded_marks_def split: if_splits)
qed

lemma is_threaded:
  assumes "vm_ok vm0" "heap vm0 a = Some ob" "gc_type ob = JANET_MEMORY_THREADED_ABSTRACT"
  shows "a \<in> fst ` set (threaded_abstracts vm0)"
proof -
  have "a \<in> set (blocks vm0) \<union> set (weak_blocks vm0) \<union> fst ` set (threaded_abstracts vm0)"
    using assms(1,2) by (auto simp: vm_ok_def blocks_ok_def)
  moreover have "a \<notin> set (blocks vm0)" "a \<notin> set (weak_blocks vm0)"
    using assms by (auto simp: vm_ok_def blocks_ok_def has_type_def is_weak_type_def)
  ultimately show ?thesis by blast
qed

lemma abstract_call:
  assumes "vm_ok vm0" "\<And>v. u = Suc v \<Longrightarrow> value_calls vm0 v R"
  shows "block_call vm0 u abstract_types (janet_mark_abstract R)"
  unfolding block_call_def
proof (intro allI impI)
  fix a assume "has_type (heap vm0) abstract_types a"
  then obtain ob where a: "heap vm0 a = Some ob" "gc_type ob \<in> abstract_types" by (rule has_type_Some)
  with vm_ok_data [OF assms(1) a(1)] obtain g f where d: "gc_data ob = AbstractData g f"
    "case g of None \<Rightarrow> True | Some xs \<Rightarrow> gc_type ob = JANET_MEMORY_THREADED_ABSTRACT \<or> values_ok (heap vm0) xs"
    by (auto simp: data_ok_def split: gc_data.splits)
  show "marks vm0 0 u {a} (janet_mark_abstract R a)"
  proof (cases "gc_type ob = JANET_MEMORY_THREADED_ABSTRACT")
    case True
    show ?thesis
    proof (rule marksI)
      fix d M sp vm assume at: "vm_at vm0 d M sp vm"
      let ?vm = "vm\<lparr>threaded_abstracts := threaded_put a (threaded_abstracts vm)\<rparr>"
      have "threaded_put a (threaded_abstracts vm) = threaded_marks (threaded_abstracts vm0) (insert a M)"
        using threaded_put_marks [OF is_threaded [OF assms(1) a(1) True]] by (simp add: vm_at_sel(4) [OF at])
      moreover have "mark_heap (heap vm0) (insert a M) = mark_heap (heap vm0) M"
        using a(1) True by (auto simp: mark_heap_def fun_eq_iff split: option.splits)
      ultimately have "vm_at vm0 d (insert a M) sp ?vm"
        using vm_at_sel [OF at] a(1) by (intro vm_at_step [OF at]) auto
      moreover have "janet_mark_abstract R a vm = Some ?vm"
        using a(1) True by (simp add: janet_mark_abstract_def vm_at_sel(1) [OF at] mark_heap_Some)
      moreover have "progress (heap vm0) {a} M (insert a M) []"
        by (rule progress_mark)
          (simp add: gc_refs_def data_refs_def d(1) a(1) True progress_refl split: option.splits)
      ultimately have "janet_mark_abstract R a vm = Some ?vm \<and> vm_at vm0 d (insert a M) (sp @ []) ?vm \<and>
         progress (heap vm0) {a} M (insert a M) [] \<and> (0 \<le> d \<longrightarrow> insert a M = M \<longrightarrow> [] = ([] :: Janet list))"
        by simp
      then show "\<exists>vm' M' ext. janet_mark_abstract R a vm = Some vm' \<and>
         vm_at vm0 d M' (sp @ ext) vm' \<and> progress (heap vm0) {a} M M' ext \<and>
         (0 \<le> d \<longrightarrow> M' = M \<longrightarrow> ext = [])" by blast
    qed
  next
    case False
    let ?b = "\<lambda>ob vm. case gc_data ob of AbstractData gcmark _ \<Rightarrow>
          (case gcmark of None \<Rightarrow> Some vm
           | Some xs \<Rightarrow> janet_mark_many (call_mark R) xs vm)
        | _ \<Rightarrow> None"
    have "marks vm0 (Suc 0) v (gc_refs (heap vm0) a) (?b ob)" if "u = Suc v" for v
      using d(2) False marks_Some many_call [OF assms(2) [OF that]]
      by (cases g) (simp_all add: gc_refs_def data_refs_def a(1) d(1) False)
    then have "marks vm0 0 u {a} (mark_block ?b a)"
      by (intro marks_block [OF a(1) False]) (simp_all add: d(1))
    then show ?thesis
    proof (rule marks_cong)
      fix d M sp vm assume at: "vm_at vm0 d M sp vm"
      obtain ob' where "heap vm a = Some ob'" "gc_type ob' = gc_type ob"
        using mark_heap_Some [of "heap vm0" a ob M, OF a(1)] by (simp add: vm_at_sel(1) [OF at])
      then show "janet_mark_abstract R a vm = mark_block ?b a vm"
        using False by (simp add: janet_mark_abstract_def mark_block_def)
    qed
  qed
qed

lemma funcdef_call:
  assumes "vm_ok vm0" "\<And>v. u = Suc v \<Longrightarrow> value_calls vm0 v R"
    and "\<And>v. u = Suc v \<Longrightarrow> block_call vm0 v {JANET_MEMORY_FUNCDEF} (call_funcdef R)"
  shows "block_call vm0 u {JANET_MEMORY_FUNCDEF} (janet_mark_funcdef R)"
  unfolding block_call_def janet_mark_funcdef_def
proof (intro allI impI)
  fix a assume "has_type (heap vm0) {JANET_MEMORY_FUNCDEF} a"
  then obtain ob where a: "heap vm0 a = Some ob" "gc_type ob \<in> {JANET_MEMORY_FUNCDEF}" by (rule has_type_Some)
  with vm_ok_data [OF assms(1) a(1)] obtain def where d: "gc_data ob = FuncDefData def"
    "funcdef_ok (heap vm0) def" by (auto simp: data_ok_def split: gc_data.splits)
  have str: "block_call vm0 v string_types janet_mark_string" for v
    unfolding block_call_def janet_mark_string_def [abs_def]
    by (intro allI impI marks_string [OF assms(1)]) (auto simp: has_type_def split: option.splits)
  have "marks vm0 (Suc 0) v (gc_refs (heap vm0) a) (\<lambda>vm. do {
     vm \<leftarrow> janet_mark_many (call_mark R) (def_constants def) vm;
     vm \<leftarrow> foldM (call_funcdef R) (def_defs def) vm;
     vm \<leftarrow> if_ptr janet_mark_string (def_source def) vm;
     vm \<leftarrow> if_ptr janet_mark_string (def_name def) vm;
     foldM janet_mark_string (def_symbolmap def) vm })" if u: "u = Suc v" for v
  proof -
    from d(2) have ok: "values_ok (heap vm0) (def_constants def)"
      "list_all (has_type (heap vm0) {JANET_MEMORY_FUNCDEF}) (def_defs def)"
      "ptr_ok (heap vm0) string_types (def_source def)" "ptr_ok (heap vm0) string_types (def_name def)"
      "list_all (has_type (heap vm0) string_types) (def_symbolmap def)"
      by (simp_all add: funcdef_ok_def)
    have refs: "gc_refs (heap vm0) a = value_refs (def_constants def) \<union> (set (def_defs def) \<union>
        (set_option (def_source def) \<union> (set_option (def_name def) \<union> set (def_symbolmap def))))"
      by (auto simp: gc_refs_def a(1) data_refs_def d(1) funcdef_refs_def)
    show ?thesis unfolding refs
      by (intro marks_bind many_call [OF assms(2) [OF u] ok(1)] list_call [OF assms(3) [OF u] ok(2)]
          ptr_call [OF str ok(3)] ptr_call [OF str ok(4)] list_call [OF str ok(5)])
  qed
  then show "marks vm0 0 u {a} (mark_block (\<lambda>ob vm. case gc_data ob of FuncDefData def \<Rightarrow> do {
     vm \<leftarrow> janet_mark_many (call_mark R) (def_constants def) vm;
     vm \<leftarrow> foldM (call_funcdef R) (def_defs def) vm;
     vm \<leftarrow> if_ptr janet_mark_string (def_source def) vm;
     vm \<leftarrow> if_ptr janet_mark_string (def_name def) vm;
     foldM janet_mark_string (def_symbolmap def) vm }
   | _ \<Rightarrow> None) a)"
    using a d(1) by (intro marks_block [OF a(1)]) simp_all
qed

lemma function_call:
  assumes "vm_ok vm0" "\<And>v. u = Suc v \<Longrightarrow> block_call vm0 v {JANET_MEMORY_FUNCENV} (call_funcenv R)"
    and "\<And>v. u = Suc v \<Longrightarrow> block_call vm0 v {JANET_MEMORY_FUNCDEF} (call_funcdef R)"
  shows "block_call vm0 u {JANET_MEMORY_FUNCTION} (janet_mark_function R)"
  unfolding block_call_def
proof (intro allI impI)
  fix a assume "has_type (heap vm0) {JANET_MEMORY_FUNCTION} a"
  then obtain ob where a: "heap vm0 a = Some ob" "gc_type ob \<in> {JANET_MEMORY_FUNCTION}" by (rule has_type_Some)
  with vm_ok_data [OF assms(1) a(1)] obtain fn where d: "gc_data ob = FunctionData fn"
    "function_ok (heap vm0) a fn" by (auto simp: data_ok_def split: gc_data.splits)
  let ?b = "\<lambda>ob vm. case gc_data ob of FunctionData func \<Rightarrow>
     (case fn_def func of None \<Rightarrow> Some vm
      | Some d \<Rightarrow> do {
          def \<leftarrow> get_funcdef (heap vm) a;
          vm \<leftarrow> (if def_environments_length def \<le> length (fn_envs func)
                then foldM (call_funcenv R) (take (def_environments_length def) (fn_envs func)) vm
                else None);
          call_funcdef R d vm })
   | _ \<Rightarrow> None"
  show "marks vm0 0 u {a} (janet_mark_function R a)"
    unfolding janet_mark_function_def
  proof (rule marks_block [OF a(1)])
    show "gc_type ob \<noteq> JANET_MEMORY_THREADED_ABSTRACT" "\<forall>env. gc_data ob \<noteq> FuncEnvData env"
      using a(2) d(1) by auto
    fix v assume u: "u = Suc v"
    show "marks vm0 (Suc 0) v (gc_refs (heap vm0) a) (?b ob)"
    proof (cases "fn_def fn")
      case None
      then show ?thesis using a(1) d(1) marks_Some by (simp add: gc_refs_def data_refs_def)
    next
      case (Some dd)
      with d(2) obtain def where def: "get_funcdef (heap vm0) a = Some def"
        "def_environments_length def \<le> length (fn_envs fn)" "has_type (heap vm0) {JANET_MEMORY_FUNCDEF} dd"
        "list_all (has_type (heap vm0) {JANET_MEMORY_FUNCENV}) (function_envs (heap vm0) a fn)"
        by (auto simp: function_ok_def split: option.splits)
      have "marks vm0 (Suc 0) v (set (function_envs (heap vm0) a fn) \<union> {dd})
        (\<lambda>vm. Option.bind (foldM (call_funcenv R) (function_envs (heap vm0) a fn) vm) (call_funcdef R dd))"
        by (intro marks_bind list_call [OF assms(2) [OF u] def(4)] block_callD [OF assms(3) [OF u] def(3)])
      then have "marks vm0 (Suc 0) v (gc_refs (heap vm0) a)
        (\<lambda>vm. Option.bind (foldM (call_funcenv R) (function_envs (heap vm0) a fn) vm) (call_funcdef R dd))"
        using a(1) d(1) Some by (simp add: gc_refs_def data_refs_def)
      then show ?thesis
        by (rule marks_cong) (simp add: d(1) Some vm_at_sel(1) def(1,2) function_envs_def)
    qed
  qed
qed

lemma funcenv_call:
  assumes "vm_ok vm0" "\<And>v. u = Suc v \<Longrightarrow> value_calls vm0 v R"
    and "\<And>v. u = Suc v \<Longrightarrow> block_call vm0 v {JANET_MEMORY_FIBER} (call_fiber R)"
  shows "block_call vm0 u {JANET_MEMORY_FUNCENV} (janet_mark_funcenv R)"
  unfolding block_call_def
proof (intro allI impI)
  fix a assume "has_type (heap vm0) {JANET_MEMORY_FUNCENV} a"
  then obtain ob where a: "heap vm0 a = Some ob" "gc_type ob \<in> {JANET_MEMORY_FUNCENV}" by (rule has_type_Some)
  with vm_ok_data [OF assms(1) a(1)] obtain env where d: "gc_data ob = FuncEnvData env"
    "env_ok (heap vm0) a env" by (auto simp: data_ok_def split: gc_data.splits)
  then obtain env' where env': "janet_env_maybe_detach (heap vm0) a env = Some env'"
    "env_resolved (heap vm0) env'" by (auto simp: env_ok_def split: option.splits)
  let ?rest = "\<lambda>vm. case env_as env' of
       AsFiber f \<Rightarrow> if env_offset env' > 0 then call_fiber R f vm else None
     | AsValues values \<Rightarrow> if env_offset env' > 0 then None else do {
         xs \<leftarrow> slots values 0 (env_length env');
         janet_mark_many (call_mark R) xs vm }"
  show "marks vm0 0 u {a} (janet_mark_funcenv R a)"
    unfolding janet_mark_funcenv_def
  proof (rule marks_block_start [where rest = ?rest, OF a(1)])
    show "gc_type ob \<noteq> JANET_MEMORY_THREADED_ABSTRACT" using a(2) by simp
  next
    fix d M sp vm vm1 assume at: "vm_at vm0 d M sp vm" and aM: "a \<notin> M" and vm1: "janet_gc_mark a vm = Some vm1"
    let ?ob' = "ob\<lparr>gc_reachable := True, gc_data := FuncEnvData env'\<rparr>"
    have h: "heap vm a = Some ob" using a(1) aM by (simp add: vm_at_sel(1) [OF at] mark_heap_Some)
    then have vm1': "vm1 = vm\<lparr>heap := (heap vm)(a \<mapsto> ob\<lparr>gc_reachable := True\<rparr>)\<rparr>"
      using vm1 by (simp add: janet_gc_mark_def)
    have "same_code (heap vm0) (heap vm1)"
      unfolding vm1' by (simp add: same_code_upd [of "heap vm0", OF same_code_mark a(1)] vm_at_sel(1) [OF at])
    then have "janet_env_maybe_detach (heap vm1) a env = Some env'"
      using env_maybe_detach_cong [OF same_code_get] env'(1) by simp
    then obtain k where b: "env_maybe_detach_block a vm1 =
        Some (vm\<lparr>heap := (heap vm)(a \<mapsto> ?ob'), next_collection := k\<rparr>)"
      using h d(1) by (simp add: env_maybe_detach_block_def vm1')
    let ?vm2 = "vm\<lparr>heap := (heap vm)(a \<mapsto> ?ob'), next_collection := k\<rparr>"
    have "mark_heap (heap vm0) (insert a M) = (heap vm)(a \<mapsto> ?ob')"
      using a d(1) env'(1) by (simp add: mark_heap_insert vm_at_sel(1) [OF at] resolve_def)
    then have "vm_at vm0 d (insert a M) sp ?vm2"
      using vm_at_sel [OF at] a
      by (intro vm_at_step [OF at]) (auto simp: threaded_marks_insert not_threaded)
    moreover have "(do {
         vm \<leftarrow> env_maybe_detach_block a vm1;
         ob \<leftarrow> heap vm a;
         (case gc_data ob of FuncEnvData env \<Rightarrow>
            (case env_as env of
               AsFiber f \<Rightarrow> if env_offset env > 0 then call_fiber R f vm else None
             | AsValues values \<Rightarrow> if env_offset env > 0 then None else do {
                 xs \<leftarrow> slots values 0 (env_length env);
                 janet_mark_many (call_mark R) xs vm })
          | _ \<Rightarrow> None) }) = ?rest ?vm2"
      unfolding b by simp
    ultimately show "\<exists>vm2. (do {
         vm \<leftarrow> env_maybe_detach_block a vm1;
         ob \<leftarrow> heap vm a;
         (case gc_data ob of FuncEnvData env \<Rightarrow>
            (case env_as env of
               AsFiber f \<Rightarrow> if env_offset env > 0 then call_fiber R f vm else None
             | AsValues values \<Rightarrow> if env_offset env > 0 then None else do {
                 xs \<leftarrow> slots values 0 (env_length env);
                 janet_mark_many (call_mark R) xs vm })
          | _ \<Rightarrow> None) }) = ?rest vm2 \<and> vm_at vm0 d (insert a M) sp vm2" by blast
  next
    fix v assume u: "u = Suc v"
    show "marks vm0 (Suc 0) v (gc_refs (heap vm0) a) ?rest"
      using env' block_callD [OF assms(3) [OF u]] many_call [OF assms(2) [OF u]] a(1) d(1)
      by (cases "env_as env'")
        (auto simp: gc_refs_def data_refs_def env_refs_def env_resolved_def slots_def)
  qed
qed

lemma frames_call:
  assumes "value_calls vm0 v R" "block_call vm0 v {JANET_MEMORY_FUNCTION} (call_function R)"
    and "block_call vm0 v {JANET_MEMORY_FUNCENV} (call_funcenv R)"
  shows "frame_values data j frs = Some xs \<Longrightarrow> values_ok (heap vm0) xs \<Longrightarrow>
    list_all (\<lambda>fr. ptr_ok (heap vm0) {JANET_MEMORY_FUNCTION} (fr_func fr) \<and>
                   ptr_ok (heap vm0) {JANET_MEMORY_FUNCENV} (fr_env fr)) frs \<Longrightarrow>
    marks vm0 (Suc 0) v (value_refs xs \<union> (\<Union>fr\<in>set frs. set_option (fr_func fr) \<union> set_option (fr_env fr)))
      (mark_frames (call_function R) (call_funcenv R) (call_mark R) data j frs)"
proof (induction frs arbitrary: j xs)
  case Nil
  have "mark_frames (call_function R) (call_funcenv R) (call_mark R) data j [] = Some" by (rule ext) simp
  then show ?case using Nil marks_Some by simp
next
  case (Cons fr frs)
  from Cons.prems(1) obtain ys zs where
    ys: "slots data (fr_index fr) (j - fr_index fr) = Some ys"
    and zs: "frame_values data (fr_index fr - JANET_FRAME_SIZE) frs = Some zs" and xs: "xs = ys @ zs"
    by (auto split: bind_splits)
  have ok: "values_ok (heap vm0) ys" "values_ok (heap vm0) zs" using Cons.prems(2) xs by simp_all
  have rest: "marks vm0 (Suc 0) v (value_refs zs \<union> (\<Union>fr\<in>set frs. set_option (fr_func fr) \<union> set_option (fr_env fr)))
      (mark_frames (call_function R) (call_funcenv R) (call_mark R) data (fr_index fr - JANET_FRAME_SIZE) frs)"
    by (rule Cons.IH [OF zs ok(2)]) (use Cons.prems(3) in simp)
  have "marks vm0 (Suc 0) v (set_option (fr_func fr) \<union> (set_option (fr_env fr) \<union> (value_refs ys \<union>
      (value_refs zs \<union> (\<Union>fr\<in>set frs. set_option (fr_func fr) \<union> set_option (fr_env fr))))))
    (\<lambda>vm. do { vm \<leftarrow> if_ptr (call_function R) (fr_func fr) vm;
     vm \<leftarrow> if_ptr (call_funcenv R) (fr_env fr) vm;
     vm \<leftarrow> janet_mark_many (call_mark R) ys vm;
     mark_frames (call_function R) (call_funcenv R) (call_mark R) data (fr_index fr - JANET_FRAME_SIZE) frs vm })"
    using Cons.prems(3)
    by (intro marks_bind ptr_call [OF assms(2)] ptr_call [OF assms(3)] many_call [OF assms(1) ok(1)] rest)
      auto
  then show ?case
    by (rule marks_eq) (auto simp: xs ys fun_eq_iff)
qed

lemma fiber_call:
  assumes "vm_ok vm0" and calls: "\<And>v. u = Suc v \<Longrightarrow> value_calls vm0 v R \<and> block_calls vm0 v R"
  shows "block_call vm0 u {JANET_MEMORY_FIBER} (janet_mark_fiber R)"
  unfolding block_call_def
proof (intro allI impI)
  fix a assume "has_type (heap vm0) {JANET_MEMORY_FIBER} a"
  then obtain ob where a: "heap vm0 a = Some ob" "gc_type ob \<in> {JANET_MEMORY_FIBER}" by (rule has_type_Some)
  with vm_ok_data [OF assms(1) a(1)] obtain f where d: "gc_data ob = FiberData f"
    "fiber_ok (heap vm0) f" by (auto simp: data_ok_def split: gc_data.splits)
  then obtain xs where xs: "fiber_values f = Some xs" "values_ok (heap vm0) xs"
    by (auto simp: fiber_ok_def split: option.splits)
  then obtain args frs where parts:
    "slots (fib_data f) (fib_stackstart f) (fib_stacktop f - fib_stackstart f) = Some args"
    "frame_values (fib_data f) (fib_stackstart f - JANET_FRAME_SIZE) (fib_frames f) = Some frs"
    "xs = fib_last_value f # args @ frs @ (case fib_ev_callback f of None \<Rightarrow> [] | Some ys \<Rightarrow> ys)"
    by (auto simp: fiber_values_def split: bind_splits)
  let ?F = "\<Union>fr\<in>set (fib_frames f). set_option (fr_func fr) \<union> set_option (fr_env fr)"
  let ?cb = "\<lambda>vm. case fib_ev_callback f of None \<Rightarrow> Some vm | Some xs \<Rightarrow> janet_mark_many (call_mark R) xs vm"
  show "marks vm0 0 u {a} (janet_mark_fiber R a)"
    unfolding janet_mark_fiber_def
  proof (rule marks_block [OF a(1)], goal_cases)
    case 1 then show ?case using a(2) by simp
  next
    case 2 then show ?case using d(1) by simp
  next
    case (3 v)
    with calls have val: "value_calls vm0 v R" and blk: "block_calls vm0 v R" by simp_all
    have cb: "marks vm0 (Suc 0) v (value_refs (case fib_ev_callback f of None \<Rightarrow> [] | Some ys \<Rightarrow> ys)) ?cb"
      using xs(2) parts(3) many_call [OF val] marks_Some by (cases "fib_ev_callback f") simp_all
    have "marks vm0 (Suc 0) v (set_option (value_ref (fib_last_value f)) \<union> (value_refs args \<union>
        ((value_refs frs \<union> ?F) \<union> (set_option (fib_env f) \<union> (set_option (fib_supervisor_channel f) \<union>
        (set_option (fib_ev_stream f) \<union> (value_refs (case fib_ev_callback f of None \<Rightarrow> [] | Some ys \<Rightarrow> ys) \<union>
         set_option (fib_child f))))))))
      (\<lambda>vm. do {
       vm \<leftarrow> call_mark R (fib_last_value f) vm;
       vm \<leftarrow> janet_mark_many (call_mark R) args vm;
       vm \<leftarrow> mark_frames (call_function R) (call_funcenv R) (call_mark R) (fib_data f)
              (fib_stackstart f - JANET_FRAME_SIZE) (fib_frames f) vm;
       vm \<leftarrow> if_ptr (call_table R) (fib_env f) vm;
       vm \<leftarrow> if_ptr (call_abstract R) (fib_supervisor_channel f) vm;
       vm \<leftarrow> if_ptr (call_abstract R) (fib_ev_stream f) vm;
       vm \<leftarrow> ?cb vm;
       if_ptr (call_fiber R) (fib_child f) vm })"
      using blk d(2) xs(2) unfolding block_calls_def fiber_ok_def parts(3)
      by (intro marks_bind value_call [OF val] many_call [OF val] frames_call [OF val] cb
          ptr_call [where tys = table_types] ptr_call [where tys = abstract_types]
          ptr_call [where tys = "{JANET_MEMORY_FIBER}"] parts(2)) simp_all
    moreover have "gc_refs (heap vm0) a = set_option (value_ref (fib_last_value f)) \<union> (value_refs args \<union>
        ((value_refs frs \<union> ?F) \<union> (set_option (fib_env f) \<union> (set_option (fib_supervisor_channel f) \<union>
        (set_option (fib_ev_stream f) \<union> (value_refs (case fib_ev_callback f of None \<Rightarrow> [] | Some ys \<Rightarrow> ys) \<union>
         set_option (fib_child f)))))))"
      by (auto simp: gc_refs_def a(1) data_refs_def d(1) fiber_refs_def xs(1) parts(3))
    ultimately show ?case by (simp add: d(1) parts(1))
  qed
qed

lemma mark_call:
  assumes "vm_ok vm0" "block_calls vm0 u R" "value_ok (heap vm0) x"
  shows "marks vm0 (Suc 0) u (set_option (value_ref x)) (janet_mark R x)"
proof -
  let ?body = "\<lambda>vm. case x of
            JANET_STRING a \<Rightarrow> janet_mark_string a vm
          | JANET_KEYWORD a \<Rightarrow> janet_mark_string a vm
          | JANET_SYMBOL a \<Rightarrow> janet_mark_string a vm
          | JANET_FUNCTION a \<Rightarrow> call_function R a vm
          | JANET_ARRAY a \<Rightarrow> call_array R a vm
          | JANET_TABLE a \<Rightarrow> call_table R a vm
          | JANET_STRUCT a \<Rightarrow> call_struct R a vm
          | JANET_TUPLE a \<Rightarrow> call_tuple R a vm
          | JANET_BUFFER a \<Rightarrow> janet_mark_buffer a vm
          | JANET_FIBER a \<Rightarrow> call_fiber R a vm
          | JANET_ABSTRACT a \<Rightarrow> call_abstract R a vm
          | _ \<Rightarrow> Some vm"
  have str: "marks vm0 0 u {a} (janet_mark_string a)" "marks vm0 0 u {a} (janet_mark_buffer a)"
    if "has_type (heap vm0) {JANET_MEMORY_STRING, JANET_MEMORY_SYMBOL, JANET_MEMORY_BUFFER} a" for a
    using marks_string [OF assms(1) that]
    by (simp_all add: janet_mark_string_def [abs_def] janet_mark_buffer_def [abs_def])
  have sub: "has_type (heap vm0) tys a \<Longrightarrow> tys \<subseteq> tys' \<Longrightarrow> has_type (heap vm0) tys' a" for tys tys' a
    by (auto simp: has_type_def split: option.splits)
  have str': "has_type (heap vm0) string_types a \<Longrightarrow> marks vm0 0 u {a} (janet_mark_string a)"
    "has_type (heap vm0) {JANET_MEMORY_BUFFER} a \<Longrightarrow> marks vm0 0 u {a} (janet_mark_buffer a)" for a
    by (erule str [OF sub], blast)+
  have body: "marks vm0 0 u (set_option (value_ref x)) ?body"
    using assms(2,3) marks_Some
    by (cases x) (simp_all add: block_calls_def block_call_def str')
  show ?thesis
  proof (rule marksI)
    fix d M sp vm assume at: "vm_at vm0 d M sp vm" and u: "unmarked_left vm0 M \<le> u"
    let ?P = "\<lambda>vm' M' ext. janet_mark R x vm = Some vm' \<and> vm_at vm0 d M' (sp @ ext) vm' \<and>
       progress (heap vm0) (set_option (value_ref x)) M M' ext \<and> (Suc 0 \<le> d \<longrightarrow> M' = M \<longrightarrow> ext = [])"
    show "\<exists>vm' M' ext. ?P vm' M' ext"
    proof (cases "d = 0")
      case True
      then have "?P (janet_gcroot x vm) M [x]"
        using vm_at_gcroot [OF at] progress_spill [OF assms(3)] vm_at_sel(3) [OF at]
        by (simp add: janet_mark_def)
      then show ?thesis by blast
    next
      case False
      from marksE [OF body vm_at_depth [OF at, of "d - 1"] u] obtain vm' M' ext where
        b: "?body (vm\<lparr>depth := d - 1\<rparr>) = Some vm'" and at': "vm_at vm0 (d - 1) M' (sp @ ext) vm'"
        and p: "progress (heap vm0) (set_option (value_ref x)) M M' ext"
          "0 \<le> d - 1 \<longrightarrow> M' = M \<longrightarrow> ext = []" .
      have "janet_mark R x vm =
          Option.bind (?body (vm\<lparr>depth := d - 1\<rparr>)) (\<lambda>vm. Some (vm\<lparr>depth := depth vm + 1\<rparr>))"
        unfolding janet_mark_def Let_def vm_at_sel(3) [OF at] using False by (simp only: if_True not_False_eq_True)
      then have "janet_mark R x vm = Some (vm'\<lparr>depth := d\<rparr>)"
        using False vm_at_sel(3) [OF at'] unfolding b by simp
      then have "?P (vm'\<lparr>depth := d\<rparr>) M' ext" using vm_at_depth [OF at'] p by simp
      then show ?thesis by blast
    qed
  qed
qed

text \<open>Twice the number of unmarked blocks is enough fuel: each level of values marks a block.\<close>

lemma mark_fns_calls:
  assumes ok: "vm_ok vm0"
  shows "(\<forall>u. 2 * u + 1 \<le> n \<longrightarrow> block_calls vm0 u (mark_fns n)) \<and>
         (\<forall>u. 2 * u + 2 \<le> n \<longrightarrow> value_calls vm0 u (mark_fns n))"
proof (induction n)
  case 0
  then show ?case by simp
next
  case (Suc n)
  have blk: "block_calls vm0 u (mark_fns (Suc n))" if "2 * u + 1 \<le> Suc n" for u
  proof -
    have calls: "value_calls vm0 v (mark_fns n) \<and> block_calls vm0 v (mark_fns n)" if "u = Suc v" for v
      using Suc.IH \<open>2 * u + 1 \<le> Suc n\<close> that by simp
    then show ?thesis
      unfolding block_calls_def mark_fns.simps Let_def mark_calls.simps
      by (intro conjI abstract_call [OF ok] array_call [OF ok] table_call [OF ok] struct_call [OF ok]
          tuple_call [OF ok] funcenv_call [OF ok] funcdef_call [OF ok] function_call [OF ok]
          fiber_call [OF ok]) (auto simp: block_calls_def)
  qed
  moreover have "value_calls vm0 u (mark_fns (Suc n))" if "2 * u + 2 \<le> Suc n" for u
    using Suc.IH that mark_call [OF ok] by (simp add: value_calls_def Let_def)
  ultimately show ?case by blast
qed

end
