(* ===== verification/Janet_Phase_Proofs.thy ===== *)
theory Janet_Phase_Proofs
  imports Janet_Mark_Proofs
begin

text \<open>
  The mark phase as a whole: it returns with exactly the live blocks marked and no value left
  on the roots that it spilled there.
\<close>

lemma gc_live_reach: "gc_live vm a \<longleftrightarrow> a \<in> (gc_edges (heap vm))\<^sup>* `` gc_roots vm"
proof
  show "gc_live vm a \<Longrightarrow> a \<in> (gc_edges (heap vm))\<^sup>* `` gc_roots vm"
    by (induction rule: gc_live.induct) (auto simp: gc_edges_def intro: rtrancl_into_rtrancl)
  assume "a \<in> (gc_edges (heap vm))\<^sup>* `` gc_roots vm"
  then obtain r where "(r, a) \<in> (gc_edges (heap vm))\<^sup>*" "r \<in> gc_roots vm" by blast
  then show "gc_live vm a"
    by (induction rule: rtrancl_induct) (auto simp: gc_edges_def intro: gc_live.intros)
qed

lemma reach_trans: "S \<subseteq> r\<^sup>* `` T \<Longrightarrow> r\<^sup>* `` S \<subseteq> r\<^sup>* `` T"
  by (blast intro: rtrancl_trans)

lemma progress_pop:
  assumes "progress h T {} M (sp @ [x])" "progress h (set_option (value_ref x)) M M' ext"
  shows "progress h T {} M' (sp @ ext)"
proof -
  have reach: "(gc_edges h)\<^sup>* `` set_option (value_ref x) \<subseteq> (gc_edges h)\<^sup>* `` T"
  proof (rule reach_trans)
    show "set_option (value_ref x) \<subseteq> (gc_edges h)\<^sup>* `` T"
      using assms(1) by (simp add: progress_def)
  qed
  have sub: "M \<subseteq> M'" "M \<union> value_refs (sp @ [x]) \<subseteq> M' \<union> value_refs (sp @ ext)"
    using assms(2) by (auto simp: progress_def)
  have "gc_refs h a \<subseteq> M' \<union> value_refs (sp @ ext)" if "a \<in> M'" for a
  proof (cases "a \<in> M")
    case True
    then have "gc_refs h a \<subseteq> M \<union> value_refs (sp @ [x])" using assms(1) by (simp add: progress_def)
    with sub(2) show ?thesis by blast
  next
    case False
    then show ?thesis using assms(2) that by (auto simp: progress_def)
  qed
  moreover have "T \<subseteq> M' \<union> value_refs (sp @ ext)"
  proof -
    have "T \<subseteq> M \<union> value_refs (sp @ [x])" using assms(1) by (simp add: progress_def)
    with sub(2) show ?thesis by blast
  qed
  moreover have "M' \<union> value_refs (sp @ ext) \<subseteq> (gc_edges h)\<^sup>* `` T"
  proof -
    have "M \<union> value_refs sp \<subseteq> (gc_edges h)\<^sup>* `` T" using assms(1) by (simp add: progress_def)
    moreover have "(M' - M) \<union> value_refs ext \<subseteq> (gc_edges h)\<^sup>* `` T"
      using assms(2) reach by (simp only: progress_def) blast
    ultimately show ?thesis by auto
  qed
  moreover have "values_ok h (sp @ ext)" using assms by (simp add: progress_def)
  ultimately show ?thesis by (simp add: progress_def)
qed

section \<open>Draining the spilled values\<close>

lemma drain_roots_live:
  assumes calls: "\<And>u. u \<le> card (dom (heap vm0)) \<Longrightarrow> block_calls vm0 u R"
    and rc: "orig_rootcount vm0 = length (roots vm0)" and d: "0 < d"
  shows "vm_at vm0 d M sp vm \<Longrightarrow> progress (heap vm0) T {} M sp \<Longrightarrow>
    \<exists>vm' M'. drain_roots R vm = Some vm' \<and> vm_at vm0 d M' [] vm' \<and> progress (heap vm0) T {} M' []"
proof (induction "(unmarked_left vm0 M, length sp)" arbitrary: M sp vm
    rule: wf_induct_rule [OF wf_lex_prod [OF wf_less_than wf_less_than]])
  case (1 M sp vm)
  note at = "1.prems"(1)
  show ?case
  proof (cases sp rule: rev_cases)
    case Nil
    then have "drain_roots R vm = Some vm"
      using rc by (subst drain_roots.simps) (simp add: vm_at_sel [OF at])
    then show ?thesis using "1.prems" Nil by blast
  next
    case (snoc sp' x)
    let ?vm = "vm\<lparr>roots := butlast (roots vm)\<rparr>"
    have at1: "vm_at vm0 d M sp' ?vm" using vm_at_pop at snoc by simp
    have x: "value_ok (heap vm0) x" using "1.prems"(2) snoc by (simp add: progress_def)
    have u: "unmarked_left vm0 M \<le> card (dom (heap vm0))"
      unfolding unmarked_left_def using vm_at_finite [OF at] by (intro card_mono) auto
    from marksE [OF mark_call [OF vm_at_sel(6) [OF at] calls [OF u] x] at1 le_refl]
    obtain vm2 M2 ext where m: "janet_mark R x ?vm = Some vm2" "vm_at vm0 d M2 (sp' @ ext) vm2"
      "progress (heap vm0) (set_option (value_ref x)) M M2 ext" "Suc 0 \<le> d \<longrightarrow> M2 = M \<longrightarrow> ext = []" .
    have sub: "M \<subseteq> M2" using m(3) by (simp add: progress_def)
    have "((unmarked_left vm0 M2, length (sp' @ ext)), (unmarked_left vm0 M, length sp)) \<in> less_than <*lex*> less_than"
    proof (cases "M2 = M")
      case True
      then show ?thesis using m(4) d snoc by simp
    next
      case False
      have "dom (heap vm0) - M2 \<subset> dom (heap vm0) - M" using sub False vm_at_sel(5) [OF m(2)] by blast
      then show ?thesis
        using vm_at_finite [OF at] by (simp add: unmarked_left_def psubset_card_mono)
    qed
    from "1.hyps" [OF this m(2) progress_pop [OF "1.prems"(2) [unfolded snoc] m(3)]]
    obtain vm3 M3 where "drain_roots R vm2 = Some vm3" "vm_at vm0 d M3 [] vm3" "progress (heap vm0) T {} M3 []"
      by blast
    moreover have "drain_roots R vm = drain_roots R vm2"
      using rc m(1) by (subst drain_roots.simps) (simp add: vm_at_sel [OF at] snoc)
    ultimately show ?thesis by auto
  qed
qed

section \<open>The phase\<close>

lemma marks_list:
  "vm_ok vm0 \<Longrightarrow> block_calls vm0 u R \<Longrightarrow> values_ok (heap vm0) xs \<Longrightarrow>
   marks vm0 (Suc 0) u (value_refs xs) (foldM (janet_mark R) xs)"
  unfolding value_refs_def by (intro marks_foldM mark_call) (auto simp: values_ok_def list_all_iff)

lemma marks_fiber_value:
  "vm_ok vm0 \<Longrightarrow> block_calls vm0 u R \<Longrightarrow> has_type (heap vm0) {JANET_MEMORY_FIBER} f \<Longrightarrow>
   marks vm0 (Suc 0) u {f} (janet_mark R (JANET_FIBER f))"
  using mark_call [of vm0 u R "JANET_FIBER f"] by simp

lemma marks_tasks:
  assumes ok: "vm_ok vm0" "block_calls vm0 u R" and ts: "list_all (task_ok (heap vm0)) ts"
  shows "marks vm0 (Suc 0) u (\<Union>t\<in>set ts. task_refs t) (foldM (mark_task R) ts)"
proof (rule marks_foldM)
  fix t assume "t \<in> set ts"
  with ts have "task_ok (heap vm0) t" by (simp add: list_all_iff)
  then have "marks vm0 (Suc 0) u ({task_fiber t} \<union> set_option (value_ref (task_value t)))
      (\<lambda>vm. Option.bind (janet_mark R (JANET_FIBER (task_fiber t)) vm) (janet_mark R (task_value t)))"
    by (intro marks_bind marks_fiber_value ok mark_call) (auto simp: task_ok_def)
  then show "marks vm0 (Suc 0) u (task_refs t) (mark_task R t)"
    by (rule marks_eq) (auto simp: task_refs_def mark_task_def fun_eq_iff)
qed

lemma marks_timeouts:
  assumes ok: "vm_ok vm0" "block_calls vm0 u R" and ts: "list_all (timeout_ok (heap vm0)) ts"
  shows "marks vm0 (Suc 0) u (\<Union>t\<in>set ts. timeout_refs t) (foldM (mark_timeout R) ts)"
proof (rule marks_foldM)
  fix t assume "t \<in> set ts"
  with ts have "timeout_ok (heap vm0) t" by (simp add: list_all_iff)
  then have "marks vm0 (Suc 0) u ({to_fiber t} \<union> set_option (to_curr_fiber t))
      (\<lambda>vm. Option.bind (janet_mark R (JANET_FIBER (to_fiber t)) vm)
        (if_ptr (\<lambda>f. janet_mark R (JANET_FIBER f)) (to_curr_fiber t)))"
    by (intro marks_bind marks_fiber_value ok marks_if_ptr) (auto simp: timeout_ok_def ptr_ok_def)
  then show "marks vm0 (Suc 0) u (timeout_refs t) (mark_timeout R t)"
    by (rule marks_eq) (auto simp: timeout_refs_def mark_timeout_def fun_eq_iff)
qed

lemma marks_ev:
  assumes ok: "vm_ok vm0" "block_calls vm0 u R"
  shows "marks vm0 (Suc 0) u ((\<Union>t\<in>set (spawn_tasks vm0). task_refs t) \<union> (\<Union>t\<in>set (tq vm0). timeout_refs t))
    (janet_ev_mark R)"
proof -
  have r: "list_all (task_ok (heap vm0)) (spawn_tasks vm0)" "list_all (timeout_ok (heap vm0)) (tq vm0)"
    using ok(1) by (simp_all add: vm_ok_def roots_ok_def)
  have 2: "marks vm0 (Suc 0) u (\<Union>t\<in>set (tq vm0). timeout_refs t) (\<lambda>vm. foldM (mark_timeout R) (tq vm) vm)"
    by (rule marks_cong [OF marks_timeouts [OF ok r(2)]]) (simp add: vm_at_sel)
  from marks_bind [OF marks_tasks [OF ok r(1)] 2] show ?thesis
    by (rule marks_cong) (simp add: janet_ev_mark_def vm_at_sel)
qed

text \<open>All that is marked before the spilled values are.\<close>

definition mark_roots :: "mark_calls \<Rightarrow> JanetVM \<Rightarrow> JanetVM option" where
  "mark_roots R vm = do {
     vm \<leftarrow> janet_ev_mark R vm;
     fiber \<leftarrow> root_fiber vm;
     vm \<leftarrow> janet_mark_fiber R fiber vm;
     vm \<leftarrow> if_ptr (janet_mark_table R) (top_dyns vm) vm;
     foldM (janet_mark R) (take (orig_rootcount vm) (roots vm)) vm }"

lemma marks_roots:
  assumes ok: "vm_ok vm0" and calls: "\<And>u. u \<le> N \<Longrightarrow> block_calls vm0 u R \<and> value_calls vm0 u R"
    and rc: "orig_rootcount vm0 = length (roots vm0)"
  shows "marks vm0 (Suc 0) N (gc_roots vm0) (mark_roots R)"
proof -
  note blk = conjunct1 [OF calls [OF le_refl]]
  have calls': "u = Suc v \<Longrightarrow> value_calls vm0 v R \<and> block_calls vm0 v R" if "u \<le> N" for u v
    using calls that by simp
  obtain f where f: "root_fiber vm0 = Some f" "has_type (heap vm0) {JANET_MEMORY_FIBER} f"
    using ok by (auto simp: vm_ok_def roots_ok_def ptr_ok_def split: option.splits)
  have r: "ptr_ok (heap vm0) table_types (top_dyns vm0)" "values_ok (heap vm0) (roots vm0)"
    using ok by (simp_all add: vm_ok_def roots_ok_def)
  have fiber: "block_call vm0 N {JANET_MEMORY_FIBER} (janet_mark_fiber R)"
    using calls' by (intro fiber_call [OF ok]) blast
  have table: "block_call vm0 N table_types (janet_mark_table R)"
    using calls' by (intro table_call [OF ok]) (auto simp: block_calls_def)
  have 4: "marks vm0 (Suc 0) N (value_refs (roots vm0))
      (\<lambda>vm. foldM (janet_mark R) (take (orig_rootcount vm) (roots vm)) vm)"
    by (rule marks_cong [OF marks_list [OF ok blk r(2)]]) (simp add: vm_at_sel rc)
  have 3: "marks vm0 (Suc 0) N (set_option (top_dyns vm0)) (\<lambda>vm. if_ptr (janet_mark_table R) (top_dyns vm) vm)"
    by (rule marks_cong [OF ptr_call [OF table r(1)]]) (simp add: vm_at_sel)
  have 2: "marks vm0 (Suc 0) N {f} (\<lambda>vm. do { fiber \<leftarrow> root_fiber vm; janet_mark_fiber R fiber vm })"
    by (rule marks_cong [OF block_callD [OF fiber f(2)]]) (simp add: vm_at_sel f(1))
  have "marks vm0 (Suc 0) N (((\<Union>t\<in>set (spawn_tasks vm0). task_refs t) \<union> (\<Union>t\<in>set (tq vm0). timeout_refs t)) \<union>
      ({f} \<union> (set_option (top_dyns vm0) \<union> value_refs (roots vm0))))
    (\<lambda>vm. Option.bind (janet_ev_mark R vm) (\<lambda>vm. Option.bind (do { fiber \<leftarrow> root_fiber vm; janet_mark_fiber R fiber vm })
      (\<lambda>vm. Option.bind (if_ptr (janet_mark_table R) (top_dyns vm) vm)
        (\<lambda>vm. foldM (janet_mark R) (take (orig_rootcount vm) (roots vm)) vm))))"
    by (intro marks_bind marks_ev [OF ok blk] 2 3 4)
  then show ?thesis
    by (rule marks_eq) (auto simp: gc_roots_def f(1) mark_roots_def fun_eq_iff)
qed

lemma mark_phase_live:
  fixes vm :: JanetVM
  assumes ok: "vm_ok vm" and d: "depth vm = Suc d" and n: "2 * card (dom (heap vm)) + 2 \<le> n"
  defines "vm0 \<equiv> vm\<lparr>orig_rootcount := length (roots vm)\<rparr>"
  shows "\<exists>vm'. janet_mark_phase (mark_fns n) vm = Some vm' \<and> vm_at vm0 (Suc d) {a. gc_live vm a} [] vm'"
proof -
  let ?N = "card (dom (heap vm))" and ?R = "mark_fns n"
  have "vm_ok vm0 = vm_ok vm"
    unfolding vm0_def vm_ok_def blocks_ok_def roots_ok_def spawn_tasks_def by simp
  with ok have ok0: "vm_ok vm0" by simp
  have calls: "block_calls vm0 u ?R \<and> value_calls vm0 u ?R" if "u \<le> ?N" for u
    using mark_fns_calls [OF ok0, of n] n that by auto
  have at0: "vm_at vm0 (Suc d) {} [] vm0"
    unfolding vm_at_eq using ok0 d by (simp add: vm0_def mark_state_def threaded_marks_def)
  have rc: "orig_rootcount vm0 = length (roots vm0)" and N: "unmarked_left vm0 {} \<le> ?N"
    by (simp_all add: vm0_def unmarked_left_def)
  from marksE [OF marks_roots [OF ok0 calls rc] at0 N] obtain vm1 M1 ext where
    1: "mark_roots ?R vm0 = Some vm1" "vm_at vm0 (Suc d) M1 ([] @ ext) vm1"
      "progress (heap vm0) (gc_roots vm0) {} M1 ext" .
  from drain_roots_live [OF _ _ _ 1(2) [simplified] 1(3), of ?R] calls obtain vm2 M2 where
    2: "drain_roots ?R vm1 = Some vm2" "vm_at vm0 (Suc d) M2 [] vm2"
      "progress (heap vm0) (gc_roots vm0) {} M2 []"
    by (auto simp: vm0_def)
  have phase: "janet_mark_phase ?R vm = Option.bind (mark_roots ?R vm0) (drain_roots ?R)"
    by (simp add: janet_mark_phase_def mark_roots_def vm0_def Let_def)
  have same: "gc_roots vm0 = gc_roots vm" "heap vm0 = heap vm"
    by (simp_all add: vm0_def gc_roots_def spawn_tasks_def)
  have "M2 = {a. gc_live vm a}"
  proof (intro set_eqI iffI)
    fix a assume "a \<in> M2"
    then show "a \<in> {a. gc_live vm a}" using 2(3) same by (auto simp: progress_def gc_live_reach)
  next
    fix a assume "a \<in> {a. gc_live vm a}"
    then have "gc_live vm a" by simp
    then show "a \<in> M2"
      by induction (use 2(3) same in \<open>auto simp: progress_def\<close>)
  qed
  then show ?thesis using phase 1(1) 2(1,2) by simp
qed

end
