(* ===== verification/Janet_Sweep_Proofs.thy ===== *)
theory Janet_Sweep_Proofs
  imports Janet_Phase_Proofs
begin

text \<open>
  The sweep, over a heap in which the blocks of a set \<open>L\<close> are marked. \<open>swept h L\<close> is the heap
  it leaves: the blocks of \<open>L\<close>, unmarked again, with their environments resolved and the dead
  references of weak arrays and tables dropped.
\<close>

section \<open>Weak references\<close>

definition live_value :: "addr set \<Rightarrow> Janet \<Rightarrow> bool" where
  "live_value L x = (case value_ref x of None \<Rightarrow> True | Some a \<Rightarrow> a \<in> L)"

definition threaded_value :: "heap \<Rightarrow> Janet \<Rightarrow> bool" where
  "threaded_value h x = (case value_ref x of None \<Rightarrow> False
     | Some a \<Rightarrow> has_type h {JANET_MEMORY_THREADED_ABSTRACT} a)"

text \<open>What the flags let \<open>janet_check_liveref\<close> keep: no threaded abstract value, live or not, because
  marking sets no flag on it.\<close>

definition kept_value :: "heap \<Rightarrow> addr set \<Rightarrow> Janet \<Rightarrow> bool" where
  "kept_value h L x \<longleftrightarrow> live_value L x \<and> \<not> threaded_value h x"

lemma kept_value_eq:
  "kept_value h L x = (case value_ref x of None \<Rightarrow> True
     | Some a \<Rightarrow> a \<in> L \<and> \<not> has_type h {JANET_MEMORY_THREADED_ABSTRACT} a)"
  by (simp add: kept_value_def live_value_def threaded_value_def split: option.split)

definition checks_keys :: "JanetMemoryType \<Rightarrow> bool" where
  "checks_keys ty \<longleftrightarrow> ty = JANET_MEMORY_TABLE_WEAKK \<or> ty = JANET_MEMORY_TABLE_WEAKKV"

definition checks_values :: "JanetMemoryType \<Rightarrow> bool" where
  "checks_values ty \<longleftrightarrow> ty = JANET_MEMORY_TABLE_WEAKV \<or> ty = JANET_MEMORY_TABLE_WEAKKV"

definition dead_pair :: "(Janet \<Rightarrow> bool) \<Rightarrow> JanetMemoryType \<Rightarrow> JanetKV \<Rightarrow> bool" where
  "dead_pair kept ty kv \<longleftrightarrow> checks_keys ty \<and> \<not> kept (kv_key kv) \<or> checks_values ty \<and> \<not> kept (kv_value kv)"

definition tombstone :: JanetKV where
  "tombstone = \<lparr>kv_key = JANET_NIL, kv_value = JANET_BOOLEAN False\<rparr>"

definition drop_dead_pairs :: "(Janet \<Rightarrow> bool) \<Rightarrow> JanetMemoryType \<Rightarrow> JanetTable \<Rightarrow> JanetTable" where
  "drop_dead_pairs kept ty t = (let n = length (filter (dead_pair kept ty) (tbl_data t)) in
     t\<lparr>tbl_count := tbl_count t - int n, tbl_deleted := tbl_deleted t + int n,
       tbl_data := map (\<lambda>kv. if dead_pair kept ty kv then tombstone else kv) (tbl_data t)\<rparr>)"

definition drop_weak :: "(Janet \<Rightarrow> bool) \<Rightarrow> JanetMemoryType \<Rightarrow> gc_data \<Rightarrow> gc_data" where
  "drop_weak kept ty d = (case d of
       ArrayData xs \<Rightarrow> if ty = JANET_MEMORY_ARRAY_WEAK
         then ArrayData (map (\<lambda>x. if kept x then x else JANET_NIL) xs) else d
     | TableData t \<Rightarrow> TableData (drop_dead_pairs kept ty t)
     | _ \<Rightarrow> d)"

lemma sweep_weak_array_map:
  "(\<And>x. x \<in> set xs \<Longrightarrow> janet_check_liveref h x = Some (kept x)) \<Longrightarrow>
   sweep_weak_array h xs = Some (map (\<lambda>x. if kept x then x else JANET_NIL) xs)"
  by (induction xs) simp_all

lemma sweep_weak_kvs_map:
  "(\<And>kv. kv \<in> set kvs \<Longrightarrow> janet_check_liveref h (kv_key kv) = Some (kept (kv_key kv)) \<and>
      janet_check_liveref h (kv_value kv) = Some (kept (kv_value kv))) \<Longrightarrow>
   sweep_weak_kvs h (checks_keys ty) (checks_values ty) kvs =
     Some (length (filter (dead_pair kept ty) kvs),
           map (\<lambda>kv. if dead_pair kept ty kv then tombstone else kv) kvs)"
  by (induction kvs) (auto simp: dead_pair_def tombstone_def)

lemma sweep_weak_data_drop:
  assumes "is_weak_type ty" "data_ok h0 a ty d"
    and live: "\<And>x. value_ok h0 x \<Longrightarrow> janet_check_liveref h x = Some (kept x)"
  shows "sweep_weak_data h ty d = Some (drop_weak kept ty d)"
proof (cases d)
  case (ArrayData xs)
  with assms have "ty = JANET_MEMORY_ARRAY_WEAK" "values_ok h0 xs"
    by (auto simp: data_ok_def is_weak_type_def)
  moreover from this have "sweep_weak_array h xs = Some (map (\<lambda>x. if kept x then x else JANET_NIL) xs)"
    by (intro sweep_weak_array_map live) (auto simp: values_ok_def list_all_iff)
  ultimately show ?thesis using ArrayData by (simp add: sweep_weak_data_def drop_weak_def)
next
  case (TableData t)
  with assms have ok: "ty \<in> table_types" "values_ok h0 (kv_values (tbl_data t))"
    by (auto simp: data_ok_def)
  have "sweep_weak_kvs h (checks_keys ty) (checks_values ty) (tbl_data t) =
     Some (length (filter (dead_pair kept ty) (tbl_data t)),
           map (\<lambda>kv. if dead_pair kept ty kv then tombstone else kv) (tbl_data t))"
    using ok(2) by (intro sweep_weak_kvs_map) (auto simp: values_ok_kvs list_all_iff live)
  moreover have "ty \<noteq> JANET_MEMORY_ARRAY_WEAK" using ok(1) by auto
  ultimately show ?thesis
    using TableData by (simp add: sweep_weak_data_def drop_weak_def drop_dead_pairs_def Let_def
        checks_keys_def checks_values_def)
qed (use assms in \<open>auto simp: data_ok_def is_weak_type_def\<close>)

lemma drop_weak_strong:
  "\<not> is_weak_type ty \<Longrightarrow> drop_weak kept ty d = d"
  by (cases d) (auto simp: drop_weak_def drop_dead_pairs_def dead_pair_def checks_keys_def
      checks_values_def is_weak_type_def)

text \<open>What the check of a reference reads.\<close>

definition same_flags :: "heap \<Rightarrow> heap \<Rightarrow> bool" where
  "same_flags h h' \<longleftrightarrow> (\<forall>a. map_option gc_reachable (h' a) = map_option gc_reachable (h a))"

lemma check_liveref_cong:
  "same_flags h h' \<Longrightarrow> janet_check_liveref h' x = janet_check_liveref h x"
  by (simp add: janet_check_liveref_def same_flags_def split: Janet.splits)

lemma check_liveref_mark:
  assumes "unmarked h" "value_ok h x"
  shows "janet_check_liveref (mark_heap h L) x = Some (kept_value h L x)"
proof -
  have *: "map_option gc_reachable (mark_heap h L a) =
      Some (a \<in> L \<and> \<not> has_type h {JANET_MEMORY_THREADED_ABSTRACT} a)" if "has_type h tys a" for a tys
  proof -
    from that obtain ob where "h a = Some ob" by (rule has_type_Some)
    moreover from this have "\<not> gc_reachable ob" using assms(1) unfolding unmarked_def by (metis option.simps(5))
    ultimately show ?thesis by (simp add: mark_heap_Some has_type_def)
  qed
  show ?thesis
    using assms(2) by (cases x) (simp_all add: janet_check_liveref_def kept_value_eq *)
qed

section \<open>The first loop\<close>

definition weak_swept :: "heap \<Rightarrow> addr set \<Rightarrow> addr set \<Rightarrow> heap" where
  "weak_swept h L ws = (\<lambda>a. if a \<in> ws \<inter> L
     then map_option (\<lambda>ob. ob\<lparr>gc_data := drop_weak (kept_value h L) (gc_type ob) (gc_data ob)\<rparr>) (mark_heap h L a)
     else mark_heap h L a)"

lemma weak_swept_empty [simp]: "weak_swept h L {} = mark_heap h L"
  by (simp add: weak_swept_def)

lemma same_flags_weak: "same_flags (mark_heap h L) (weak_swept h L ws)"
  by (auto simp: same_flags_def weak_swept_def option.map_comp comp_def)

lemma heap_ok_data:
  "heap_ok h \<Longrightarrow> h a = Some ob \<Longrightarrow> data_ok h a (gc_type ob) (gc_data ob) \<and> \<not> gc_disabled ob"
  unfolding heap_ok_def ob_ok_def by (metis option.simps(5))

lemma unmarkedD: "unmarked h \<Longrightarrow> h a = Some ob \<Longrightarrow> \<not> gc_reachable ob"
  unfolding unmarked_def by (metis option.simps(5))

lemma weak_resolve: "is_weak_type ty \<Longrightarrow> data_ok h a ty d \<Longrightarrow> resolve h a d = d"
  by (cases d) (auto simp: data_ok_def is_weak_type_def resolve_def)

lemma sweep_weak_refs_swept:
  assumes ok: "heap_ok h" "unmarked h"
  shows "distinct ws \<Longrightarrow> set ws \<inter> done = {} \<Longrightarrow> \<forall>a\<in>set ws. has_type h {ty. is_weak_type ty} a \<Longrightarrow>
    sweep_weak_refs ws (weak_swept h L done) = Some (weak_swept h L (done \<union> set ws))"
proof (induction ws arbitrary: "done")
  case Nil
  then show ?case by simp
next
  case (Cons w ws)
  let ?h = "weak_swept h L done"
  from Cons.prems(3) obtain ob where w: "h w = Some ob" "is_weak_type (gc_type ob)"
    by (auto elim: has_type_Some)
  note d = heap_ok_data [OF ok(1) w(1)]
  have nt: "gc_type ob \<noteq> JANET_MEMORY_THREADED_ABSTRACT" using w(2) by (auto simp: is_weak_type_def)
  have hw: "?h w = Some (if w \<in> L then ob\<lparr>gc_reachable := True\<rparr> else ob)"
    using Cons.prems(2) w nt d by (simp add: weak_swept_def mark_heap_Some weak_resolve)
  have rest: "sweep_weak_refs ws (weak_swept h L (insert w done)) = Some (weak_swept h L (insert w done \<union> set ws))"
    by (rule Cons.IH) (use Cons.prems in auto)
  show ?case
  proof (cases "w \<in> L")
    case True
    have "sweep_weak_data ?h (gc_type ob) (gc_data ob) = Some (drop_weak (kept_value h L) (gc_type ob) (gc_data ob))"
      by (rule sweep_weak_data_drop [OF w(2) conjunct1 [OF d]])
        (simp add: check_liveref_cong [OF same_flags_weak] check_liveref_mark [OF ok(2)])
    moreover have "weak_swept h L (insert w done) =
        ?h(w \<mapsto> ob\<lparr>gc_reachable := True, gc_data := drop_weak (kept_value h L) (gc_type ob) (gc_data ob)\<rparr>)"
      using True w nt d by (auto simp: weak_swept_def fun_eq_iff mark_heap_Some weak_resolve)
    ultimately show ?thesis using True hw rest by simp
  next
    case False
    have "weak_swept h L (insert w done) = ?h"
      using False by (auto simp: weak_swept_def fun_eq_iff)
    then show ?thesis using False hw rest unmarkedD [OF ok(2) w(1)] d by simp
  qed
qed

section \<open>Freeing blocks\<close>

definition unreached :: "heap \<Rightarrow> addr \<Rightarrow> bool" where
  "unreached h a = (case h a of None \<Rightarrow> False | Some ob \<Rightarrow> \<not> (gc_reachable ob \<or> gc_disabled ob))"

definition block_is :: "heap \<Rightarrow> (JanetGCObject \<Rightarrow> bool) \<Rightarrow> addr \<Rightarrow> bool" where
  "block_is h P a = (case h a of None \<Rightarrow> False | Some ob \<Rightarrow> P ob)"

definition has_finalizer :: "JanetGCObject \<Rightarrow> bool" where
  "has_finalizer ob \<longleftrightarrow> gc_type ob = JANET_MEMORY_ABSTRACT \<and>
     (case gc_data ob of AbstractData _ gc \<Rightarrow> gc | _ \<Rightarrow> False)"

definition has_listener :: "JanetGCObject \<Rightarrow> bool" where
  "has_listener ob \<longleftrightarrow> gc_type ob = JANET_MEMORY_FIBER \<and>
     (case gc_data ob of FiberData f \<Rightarrow> fib_ev_state f \<and> \<not> fib_in_flight f | _ \<Rightarrow> False)"

text \<open>The effects of freeing the dead blocks of a list, given the heap \<open>h\<close> before.\<close>

definition freed :: "heap \<Rightarrow> addr list \<Rightarrow> addr list" where
  "freed h cs = filter (unreached h) cs"

definition free_effects :: "heap \<Rightarrow> addr list \<Rightarrow> JanetVM \<Rightarrow> JanetVM" where
  "free_effects h dead vm = vm\<lparr>
     symcache := filter (\<lambda>s. s \<notin> {a \<in> set dead. block_is h (\<lambda>ob. gc_type ob = JANET_MEMORY_SYMBOL) a}) (symcache vm),
     listener_count := listener_count vm - int (length (filter (block_is h has_listener) dead)),
     finalized := finalized vm @ filter (block_is h has_finalizer) dead\<rparr>"

lemma free_effects_heap [simp]: "heap (free_effects h dead vm) = heap vm"
  "free_effects h [] vm = vm"
  by (simp_all add: free_effects_def)

lemma free_effects_sel [simp]:
  "symcache (free_effects h dead vm) =
     filter (\<lambda>s. s \<notin> {a \<in> set dead. block_is h (\<lambda>ob. gc_type ob = JANET_MEMORY_SYMBOL) a}) (symcache vm)"
  "listener_count (free_effects h dead vm) = listener_count vm - int (length (filter (block_is h has_listener) dead))"
  "finalized (free_effects h dead vm) = finalized vm @ filter (block_is h has_finalizer) dead"
  "block_count (free_effects h dead vm) = block_count vm"
  by (simp_all add: free_effects_def)

lemma free_effects_append:
  "free_effects h ds2 (free_effects h ds1 vm) = free_effects h (ds1 @ ds2) vm"
  by (rule JanetVM.equality) (auto simp: free_effects_def intro!: filter_cong)

lemma deinit_block_effects:
  assumes "h a = Some ob"
  shows "janet_deinit_block a ob vm = free_effects h [a] vm"
proof -
  consider "gc_type ob = JANET_MEMORY_SYMBOL" | "gc_type ob = JANET_MEMORY_FIBER"
    | "gc_type ob = JANET_MEMORY_ABSTRACT"
    | "gc_type ob \<notin> {JANET_MEMORY_SYMBOL, JANET_MEMORY_FIBER, JANET_MEMORY_ABSTRACT}" by blast
  then show ?thesis
  proof cases
    case 1
    then show ?thesis
      by (simp add: assms janet_deinit_block_def free_effects_def block_is_def has_finalizer_def has_listener_def)
  next
    case 2
    then show ?thesis
      by (simp add: assms janet_deinit_block_def free_effects_def block_is_def has_finalizer_def has_listener_def
          split: gc_data.split)
  next
    case 3
    then show ?thesis
      by (simp add: assms janet_deinit_block_def free_effects_def block_is_def has_finalizer_def has_listener_def
          split: gc_data.split)
  next
    case 4
    then have "janet_deinit_block a ob vm = vm"
      by (cases "gc_type ob") (simp_all add: janet_deinit_block_def)
    with 4 show ?thesis
      by (simp add: assms free_effects_def block_is_def has_finalizer_def has_listener_def)
  qed
qed

definition swept_part :: "heap \<Rightarrow> addr set \<Rightarrow> heap \<Rightarrow> heap" where
  "swept_part h C hp = (\<lambda>a. if a \<in> C
     then (if unreached h a then None else map_option (\<lambda>ob. ob\<lparr>gc_reachable := False\<rparr>) (h a)) else hp a)"

lemma sweep_blocks_freed:
  assumes "distinct cs" "\<forall>a\<in>set cs. h a \<noteq> None \<and> heap vm a = h a"
  shows "sweep_blocks cs vm = Some (filter (\<lambda>a. \<not> unreached h a) cs,
     (free_effects h (freed h cs) vm)\<lparr>heap := swept_part h (set cs) (heap vm),
        block_count := block_count vm - length (freed h cs)\<rparr>)"
  using assms
proof (induction cs arbitrary: vm)
  case Nil
  have "swept_part h {} (heap vm) = heap vm" by (simp add: swept_part_def)
  then show ?case by (simp add: freed_def)
next
  case (Cons c cs)
  from Cons.prems(2) obtain ob where ob: "h c = Some ob" "heap vm c = Some ob" by auto
  have part: "swept_part h (set cs) ((heap vm)(c := v)) = swept_part h (set (c # cs)) (heap vm)"
    if "v = (if unreached h c then None else Some (ob\<lparr>gc_reachable := False\<rparr>))" for v
    using Cons.prems(1) ob that by (auto simp: swept_part_def fun_eq_iff)
  show ?case
  proof (cases "unreached h c")
    case True
    let ?vm1 = "(free_effects h [c] (vm\<lparr>block_count := block_count vm - 1\<rparr>))\<lparr>heap := (heap vm)(c := None)\<rparr>"
    have "sweep_blocks (c # cs) vm = sweep_blocks cs ?vm1"
      using True ob by (simp add: unreached_def Let_def deinit_block_effects [of h, OF ob(1)])
    also have "\<dots> = Some (filter (\<lambda>a. \<not> unreached h a) cs,
       (free_effects h (freed h cs) ?vm1)\<lparr>heap := swept_part h (set cs) (heap ?vm1),
        block_count := block_count ?vm1 - length (freed h cs)\<rparr>)"
      by (rule Cons.IH) (use Cons.prems in auto)
    also have "(free_effects h (freed h cs) ?vm1)\<lparr>heap := swept_part h (set cs) (heap ?vm1),
        block_count := block_count ?vm1 - length (freed h cs)\<rparr> =
      (free_effects h (freed h (c # cs)) vm)\<lparr>heap := swept_part h (set (c # cs)) (heap vm),
        block_count := block_count vm - length (freed h (c # cs))\<rparr>"
      using True part [of None]
      by (intro JanetVM.equality) (auto simp: free_effects_def freed_def intro!: filter_cong)
    finally show ?thesis using True by simp
  next
    case False
    let ?vm1 = "vm\<lparr>heap := (heap vm)(c \<mapsto> ob\<lparr>gc_reachable := False\<rparr>)\<rparr>"
    have ih: "sweep_blocks cs ?vm1 = Some (filter (\<lambda>a. \<not> unreached h a) cs,
       (free_effects h (freed h cs) ?vm1)\<lparr>heap := swept_part h (set cs) (heap ?vm1),
        block_count := block_count ?vm1 - length (freed h cs)\<rparr>)"
      by (rule Cons.IH) (use Cons.prems in auto)
    have "(free_effects h (freed h cs) ?vm1)\<lparr>heap := swept_part h (set cs) (heap ?vm1),
        block_count := block_count ?vm1 - length (freed h cs)\<rparr> =
      (free_effects h (freed h (c # cs)) vm)\<lparr>heap := swept_part h (set (c # cs)) (heap vm),
        block_count := block_count vm - length (freed h (c # cs))\<rparr>"
      using False part [of "Some (ob\<lparr>gc_reachable := False\<rparr>)"]
      by (intro JanetVM.equality) (auto simp: free_effects_def freed_def intro!: filter_cong)
    then show ?thesis using False ob ih by (simp add: unreached_def)
  qed
qed

section \<open>Threaded abstract values\<close>

definition drop_refs :: "(addr \<times> bool) list \<Rightarrow> (addr \<Rightarrow> int) \<Rightarrow> addr \<Rightarrow> int" where
  "drop_refs ts refs = (\<lambda>a. if (a, False) \<in> set ts then refs a - 1 else refs a)"

definition last_refs :: "(addr \<times> bool) list \<Rightarrow> (addr \<Rightarrow> int) \<Rightarrow> addr list" where
  "last_refs ts refs = filter (\<lambda>a. refs a = 1) (map fst (filter (\<lambda>(a, v). \<not> v) ts))"

definition abstract_finalizer :: "JanetGCObject \<Rightarrow> bool" where
  "abstract_finalizer ob \<longleftrightarrow> (case gc_data ob of AbstractData _ gc \<Rightarrow> gc | _ \<Rightarrow> False)"

lemma sweep_threaded_refs:
  assumes "distinct (map fst ts)" "\<forall>a\<in>fst ` set ts. heap vm a = h a \<and> h a \<noteq> None \<and> threaded_refs vm a = refs a"
  shows "sweep_threaded ts vm = Some (map (\<lambda>(a, v). (a, False)) (filter snd ts),
    vm\<lparr>threaded_refs := drop_refs ts (threaded_refs vm),
       heap := (\<lambda>a. if a \<in> set (last_refs ts refs) then None else heap vm a),
       finalized := finalized vm @ filter (block_is h abstract_finalizer) (last_refs ts refs)\<rparr>)"
  using assms
proof (induction ts arbitrary: vm)
  case Nil
  then show ?case by (auto simp: drop_refs_def last_refs_def intro!: JanetVM.equality)
next
  case (Cons t ts)
  obtain a v where t: "t = (a, v)" by (cases t)
  have a: "heap vm a = h a" "h a \<noteq> None" "threaded_refs vm a = refs a" "a \<notin> fst ` set ts"
    using Cons.prems by (auto simp: t)
  then obtain ob where ob: "h a = Some ob" by auto
  show ?case
  proof (cases v)
    case True
    have ih: "sweep_threaded ts vm = Some (map (\<lambda>(a, v). (a, False)) (filter snd ts),
      vm\<lparr>threaded_refs := drop_refs ts (threaded_refs vm),
       heap := (\<lambda>a. if a \<in> set (last_refs ts refs) then None else heap vm a),
       finalized := finalized vm @ filter (block_is h abstract_finalizer) (last_refs ts refs)\<rparr>)"
      by (rule Cons.IH) (use Cons.prems in auto)
    moreover have "last_refs (t # ts) refs = last_refs ts refs" "drop_refs (t # ts) = drop_refs ts"
      using True by (auto simp: last_refs_def drop_refs_def t fun_eq_iff)
    ultimately show ?thesis using True by (simp add: t)
  next
    case False
    let ?refs = "(threaded_refs vm)(a := refs a - 1)"
    let ?vm1 = "vm\<lparr>threaded_refs := ?refs,
      heap := (if refs a = 1 then (heap vm)(a := None) else heap vm),
      finalized := (if refs a = 1 \<and> abstract_finalizer ob then finalized vm @ [a] else finalized vm)\<rparr>"
    have "sweep_threaded (t # ts) vm = sweep_threaded ts ?vm1"
    proof -
      have sw: "w\<lparr>finalized := f, heap := g\<rparr> = w\<lparr>heap := g, finalized := f\<rparr>" for w :: JanetVM and f g
        by (rule JanetVM.equality) simp_all
      show ?thesis
        using False a ob by (cases "gc_data ob") (auto simp: t Let_def abstract_finalizer_def sw)
    qed
    also have "\<dots> = Some (map (\<lambda>(a, v). (a, False)) (filter snd ts),
      ?vm1\<lparr>threaded_refs := drop_refs ts (threaded_refs ?vm1),
       heap := (\<lambda>a. if a \<in> set (last_refs ts refs) then None else heap ?vm1 a),
       finalized := finalized ?vm1 @ filter (block_is h abstract_finalizer) (last_refs ts refs)\<rparr>)"
      by (rule Cons.IH) (use Cons.prems a(4) in \<open>auto simp: t\<close>)
    also have "?vm1\<lparr>threaded_refs := drop_refs ts (threaded_refs ?vm1),
       heap := (\<lambda>a. if a \<in> set (last_refs ts refs) then None else heap ?vm1 a),
       finalized := finalized ?vm1 @ filter (block_is h abstract_finalizer) (last_refs ts refs)\<rparr> =
      vm\<lparr>threaded_refs := drop_refs (t # ts) (threaded_refs vm),
       heap := (\<lambda>a. if a \<in> set (last_refs (t # ts) refs) then None else heap vm a),
       finalized := finalized vm @ filter (block_is h abstract_finalizer) (last_refs (t # ts) refs)\<rparr>"
      using False a ob
      by (intro JanetVM.equality)
        (auto simp: drop_refs_def last_refs_def t block_is_def fun_eq_iff image_iff)
    finally show ?thesis using False by (simp add: t)
  qed
qed

end
