(* ===== verification/Janet_Collect_Proofs.thy ===== *)
theory Janet_Collect_Proofs
  imports Janet_Sweep_Proofs
begin

text \<open>
  The collection: mark phase and sweep together. \<open>collected vm\<close> is the state a collection leaves,
  written as a function of the state before it and of the set of live blocks.
\<close>

definition live_set :: "JanetVM \<Rightarrow> addr set" where
  "live_set vm = {a. gc_live vm a}"

definition dead_blocks :: "JanetVM \<Rightarrow> addr list" where
  "dead_blocks vm = filter (\<lambda>a. a \<notin> live_set vm) (weak_blocks vm @ blocks vm)"

text \<open>The threaded abstract values that lose their last reference.\<close>

definition dead_threaded :: "JanetVM \<Rightarrow> addr list" where
  "dead_threaded vm = last_refs (threaded_marks (threaded_abstracts vm) (live_set vm)) (threaded_refs vm)"

definition survivor :: "JanetVM \<Rightarrow> addr \<Rightarrow> JanetGCObject \<Rightarrow> JanetGCObject" where
  "survivor vm a ob = ob\<lparr>gc_data := drop_weak (kept_value (heap vm) (live_set vm)) (gc_type ob)
     (resolve (heap vm) a (gc_data ob))\<rparr>"

definition collected_heap :: "JanetVM \<Rightarrow> heap" where
  "collected_heap vm a = (case heap vm a of None \<Rightarrow> None
     | Some ob \<Rightarrow> if gc_type ob = JANET_MEMORY_THREADED_ABSTRACT
         then (if a \<in> set (dead_threaded vm) then None else Some ob)
         else (if a \<in> live_set vm then Some (survivor vm a ob) else None))"

definition collected :: "JanetVM \<Rightarrow> JanetVM \<Rightarrow> bool" where
  "collected vm vm' \<longleftrightarrow> heap vm' = collected_heap vm \<and>
     blocks vm' = filter (\<lambda>a. a \<in> live_set vm) (blocks vm) \<and>
     weak_blocks vm' = filter (\<lambda>a. a \<in> live_set vm) (weak_blocks vm) \<and>
     block_count vm' = block_count vm - length (dead_blocks vm) \<and>
     threaded_abstracts vm' = map (\<lambda>(a, v). (a, False))
       (filter snd (threaded_marks (threaded_abstracts vm) (live_set vm))) \<and>
     threaded_refs vm' = drop_refs (threaded_marks (threaded_abstracts vm) (live_set vm)) (threaded_refs vm) \<and>
     symcache vm' = filter (\<lambda>s. s \<notin> {a \<in> set (dead_blocks vm).
        block_is (heap vm) (\<lambda>ob. gc_type ob = JANET_MEMORY_SYMBOL) a}) (symcache vm) \<and>
     listener_count vm' = listener_count vm - int (length (filter (block_is (heap vm) has_listener) (dead_blocks vm))) \<and>
     finalized vm' = finalized vm @ filter (block_is (heap vm) has_finalizer) (dead_blocks vm) @
        filter (block_is (heap vm) abstract_finalizer) (dead_threaded vm) \<and>
     roots vm' = roots vm \<and> root_fiber vm' = root_fiber vm \<and> top_dyns vm' = top_dyns vm \<and>
     spawn_tasks vm' = spawn_tasks vm \<and> tq vm' = tq vm \<and> gc_suspend vm' = gc_suspend vm \<and>
     next_collection vm' = 0 \<and> gc_mark_phase vm' = False \<and> scratch_mem vm' = [] \<and>
     scratch_calls vm' = scratch_calls vm @ concat (map (\<lambda>(s, f). finalizer_call s f) (scratch_mem vm)) \<and>
     depth vm' = JANET_RECURSION_GUARD"

section \<open>The sweep of a marked heap\<close>

lemma weak_swept_strong:
  "a \<notin> ws \<Longrightarrow> weak_swept h L ws a = mark_heap h L a"
  by (simp add: weak_swept_def)

lemma unreached_weak_swept:
  assumes "heap_ok h" "unmarked h" "h a = Some ob" "gc_type ob \<noteq> JANET_MEMORY_THREADED_ABSTRACT"
  shows "unreached (weak_swept h L ws) a \<longleftrightarrow> a \<notin> L"
  using assms(3,4) heap_ok_data [OF assms(1,3)] unmarkedD [OF assms(2,3)]
  by (simp add: unreached_def weak_swept_def mark_heap_Some)

lemma block_is_dead:
  assumes "a \<notin> L"
  shows "block_is (weak_swept h L ws) P a = block_is h P a"
  using assms by (simp add: block_is_def weak_swept_def mark_heap_def split: option.splits)

lemma free_effects_dead:
  assumes "set ds \<inter> L = {}"
  shows "free_effects (weak_swept h L ws) ds vm = free_effects h ds vm"
proof -
  have b: "block_is (weak_swept h L ws) P a = block_is h P a" if "a \<in> set ds" for P a
    using assms that by (intro block_is_dead) blast
  then have "filter (block_is (weak_swept h L ws) P) ds = filter (block_is h P) ds" for P
    by (intro filter_cong) auto
  moreover have "{a \<in> set ds. block_is (weak_swept h L ws) P a} = {a \<in> set ds. block_is h P a}" for P
    using b by blast
  ultimately show ?thesis by (simp add: free_effects_def)
qed

lemma vm_ok_block:
  assumes "vm_ok vm" "a \<in> set (blocks vm) \<union> set (weak_blocks vm)"
  obtains ob where "heap vm a = Some ob" "gc_type ob \<noteq> JANET_MEMORY_THREADED_ABSTRACT"
    "a \<notin> fst ` set (threaded_abstracts vm)"
proof -
  have "a \<in> dom (heap vm)" using assms by (auto simp: vm_ok_def blocks_ok_def)
  then obtain ob where ob: "heap vm a = Some ob" by auto
  moreover have nt: "gc_type ob \<noteq> JANET_MEMORY_THREADED_ABSTRACT"
    using assms ob by (auto simp: vm_ok_def blocks_ok_def has_type_def is_weak_type_def)
  ultimately show ?thesis using that not_threaded [OF assms(1) ob nt] by blast
qed

lemma vm_ok_disjoint:
  "vm_ok vm \<Longrightarrow> set (blocks vm) \<inter> set (weak_blocks vm) = {}"
  by (auto simp: vm_ok_def blocks_ok_def has_type_def split: option.splits)

lemma vm_ok_cases:
  assumes "vm_ok vm" "heap vm a = Some ob" "gc_type ob \<noteq> JANET_MEMORY_THREADED_ABSTRACT"
  shows "a \<in> set (blocks vm) \<union> set (weak_blocks vm)"
proof -
  have "a \<in> set (blocks vm) \<union> set (weak_blocks vm) \<union> fst ` set (threaded_abstracts vm)"
    using assms(1,2) by (auto simp: vm_ok_def blocks_ok_def)
  then show ?thesis using not_threaded [OF assms] by blast
qed

lemma last_refs_threaded:
  "set (last_refs ts refs) \<subseteq> fst ` set ts"
  by (force simp: last_refs_def)

lemma threaded_marks_fst: "map fst (threaded_marks t M) = map fst t"
  by (induction t) (auto simp: threaded_marks_def)

lemma sweep_marked:
  assumes ok: "vm_ok vm0" and at: "vm_at vm0 d L [] vm"
  defines "dead \<equiv> filter (\<lambda>a. a \<notin> L) (weak_blocks vm0 @ blocks vm0)"
    and "ts \<equiv> threaded_marks (threaded_abstracts vm0) L"
  shows "\<exists>vm'. janet_sweep vm = Some vm' \<and>
    vm' = (free_effects (heap vm0) dead vm)\<lparr>
      heap := (\<lambda>a. case heap vm0 a of None \<Rightarrow> None
        | Some ob \<Rightarrow> if gc_type ob = JANET_MEMORY_THREADED_ABSTRACT
           then (if a \<in> set (last_refs ts (threaded_refs vm0)) then None else Some ob)
           else (if a \<in> L then Some (ob\<lparr>gc_data := drop_weak (kept_value (heap vm0) L) (gc_type ob)
                   (resolve (heap vm0) a (gc_data ob))\<rparr>) else None)),
      blocks := filter (\<lambda>a. a \<in> L) (blocks vm0), weak_blocks := filter (\<lambda>a. a \<in> L) (weak_blocks vm0),
      block_count := block_count vm0 - length dead,
      threaded_abstracts := map (\<lambda>(a, v). (a, False)) (filter snd ts),
      threaded_refs := drop_refs ts (threaded_refs vm0),
      finalized := finalized vm0 @ filter (block_is (heap vm0) has_finalizer) dead @
        filter (block_is (heap vm0) abstract_finalizer) (last_refs ts (threaded_refs vm0))\<rparr>"
proof -
  let ?h = "heap vm0" and ?ws = "weak_blocks vm0" and ?bs = "blocks vm0" and ?refs = "threaded_refs vm0"
  let ?hW = "weak_swept ?h L (set ?ws)"
  obtain k c where vm: "vm = mark_state vm0 d L [] k c" using at by (auto simp: vm_at_def)
  have h: "heap_ok ?h" "unmarked ?h" and b: "blocks_ok vm0" using ok by (simp_all add: vm_ok_def)
  have dist: "distinct ?ws" "distinct ?bs" "distinct (map fst (threaded_abstracts vm0))"
    and wt: "\<forall>a\<in>set ?ws. has_type ?h {ty. is_weak_type ty} a" using b by (simp_all add: blocks_ok_def)
  have weak: "sweep_weak_refs ?ws (mark_heap ?h L) = Some ?hW"
    using sweep_weak_refs_swept [OF h dist(1) _ wt, of "{}" L] by simp
  have live: "unreached ?hW a \<longleftrightarrow> a \<notin> L" if "a \<in> set ?bs \<union> set ?ws" for a
    using vm_ok_block [OF ok that] unreached_weak_swept [OF h] by metis
  have some: "?hW a \<noteq> None" if a: "a \<in> set ?bs \<union> set ?ws" for a
  proof -
    obtain ob where "?h a = Some ob" using vm_ok_block [OF ok a] by blast
    then show ?thesis by (simp add: weak_swept_def mark_heap_Some)
  qed
  have filt: "filter (\<lambda>a. \<not> unreached ?hW a) ?ws = filter (\<lambda>a. a \<in> L) ?ws"
    "filter (\<lambda>a. \<not> unreached ?hW a) ?bs = filter (\<lambda>a. a \<in> L) ?bs"
    "freed ?hW ?ws = filter (\<lambda>a. a \<notin> L) ?ws" "freed ?hW ?bs = filter (\<lambda>a. a \<notin> L) ?bs"
    using live by (auto simp: freed_def intro!: filter_cong)
  let ?dw = "filter (\<lambda>a. a \<notin> L) ?ws" and ?db = "filter (\<lambda>a. a \<notin> L) ?bs"
  have dead: "dead = ?dw @ ?db" by (simp add: dead_def)
  have fe: "free_effects ?hW ?dw v = free_effects ?h ?dw v" "free_effects ?hW ?db v = free_effects ?h ?db v" for v
    by (rule free_effects_dead, auto)+
  let ?vm1 = "vm\<lparr>heap := ?hW\<rparr>"
  let ?vm2 = "(free_effects ?h ?dw ?vm1)\<lparr>heap := swept_part ?hW (set ?ws) ?hW,
     block_count := block_count vm0 - length ?dw\<rparr>"
  have 2: "sweep_blocks ?ws ?vm1 = Some (filter (\<lambda>a. a \<in> L) ?ws, ?vm2)"
    using sweep_blocks_freed [OF dist(1), of ?hW ?vm1] some
    by (simp add: filt fe vm mark_state_def)
  let ?vm2' = "?vm2\<lparr>weak_blocks := filter (\<lambda>a. a \<in> L) ?ws\<rparr>"
  have agree: "\<forall>a\<in>set ?bs. ?hW a \<noteq> None \<and> heap ?vm2' a = ?hW a"
    using some vm_ok_disjoint [OF ok] by (auto simp: swept_part_def)
  let ?vm3 = "(free_effects ?h ?db ?vm2')\<lparr>heap := swept_part ?hW (set ?bs) (heap ?vm2'),
     block_count := block_count ?vm2' - length ?db\<rparr>"
  have 3: "sweep_blocks ?bs ?vm2' = Some (filter (\<lambda>a. a \<in> L) ?bs, ?vm3)"
    using sweep_blocks_freed [OF dist(2) agree] by (simp only: filt fe)
  let ?vm3' = "?vm3\<lparr>blocks := filter (\<lambda>a. a \<in> L) ?bs\<rparr>"
  have dts: "distinct (map fst ts)" using dist(3) by (simp add: ts_def threaded_marks_fst)
  have fts: "fst ` set ts = fst ` set (threaded_abstracts vm0)"
    by (metis list.set_map threaded_marks_fst ts_def)
  have thr: "heap ?vm3' a = ?hW a \<and> ?hW a = ?h a \<and> ?h a \<noteq> None"
    if "a \<in> fst ` set (threaded_abstracts vm0)" for a
  proof -
    have "a \<notin> set ?bs \<union> set ?ws" using vm_ok_block [OF ok, of a] that by blast
    moreover have "has_type ?h {JANET_MEMORY_THREADED_ABSTRACT} a"
      using b that unfolding blocks_ok_def by blast
    then obtain ob where "?h a = Some ob" "gc_type ob = JANET_MEMORY_THREADED_ABSTRACT"
      by (rule has_type_Some) simp
    ultimately show ?thesis by (simp add: swept_part_def weak_swept_def mark_heap_Some)
  qed
  let ?dt = "last_refs ts ?refs"
  have 4: "sweep_threaded ts ?vm3' = Some (map (\<lambda>(a, v). (a, False)) (filter snd ts),
    ?vm3'\<lparr>threaded_refs := drop_refs ts (threaded_refs ?vm3'),
       heap := (\<lambda>a. if a \<in> set ?dt then None else heap ?vm3' a),
       finalized := finalized ?vm3' @ filter (block_is ?h abstract_finalizer) ?dt\<rparr>)"
    using thr by (intro sweep_threaded_refs [OF dts]) (simp add: fts vm mark_state_def free_effects_def)
  have heap: "(if a \<in> set ?dt then None else heap ?vm3' a) = (case ?h a of None \<Rightarrow> None
        | Some ob \<Rightarrow> if gc_type ob = JANET_MEMORY_THREADED_ABSTRACT
           then (if a \<in> set ?dt then None else Some ob)
           else (if a \<in> L then Some (ob\<lparr>gc_data := drop_weak (kept_value ?h L) (gc_type ob)
                   (resolve ?h a (gc_data ob))\<rparr>) else None))" for a
  proof (cases "?h a")
    case None
    then have "heap ?vm3' a = None" by (simp add: swept_part_def weak_swept_def)
    with None show ?thesis by simp
  next
    case (Some ob)
    show ?thesis
    proof (cases "gc_type ob = JANET_MEMORY_THREADED_ABSTRACT")
      case True
      with thr [OF is_threaded [OF ok Some True]] Some show ?thesis by simp
    next
      case False
      have a: "a \<in> set ?bs \<union> set ?ws" by (rule vm_ok_cases [OF ok Some False])
      have "a \<notin> set ?dt" using last_refs_threaded [of ts ?refs] fts not_threaded [OF ok Some False] by blast
      moreover have "heap ?vm3' a = (if a \<in> L then map_option (\<lambda>ob. ob\<lparr>gc_reachable := False\<rparr>) (?hW a) else None)"
        using a live [OF a] by (auto simp: swept_part_def)
      moreover have "?hW a = Some (ob\<lparr>gc_reachable := True,
          gc_data := drop_weak (kept_value ?h L) (gc_type ob) (resolve ?h a (gc_data ob))\<rparr>)" if "a \<in> L"
      proof (cases "a \<in> set ?ws")
        case True
        then show ?thesis using that Some False by (simp add: weak_swept_def mark_heap_Some)
      next
        case nw: False
        then have "\<not> is_weak_type (gc_type ob)" using a b Some
          by (auto simp: blocks_ok_def has_type_def)
        then show ?thesis using that Some False nw by (simp add: weak_swept_def mark_heap_Some drop_weak_strong)
      qed
      moreover have "\<not> gc_reachable ob" using unmarkedD [OF h(2) Some] .
      ultimately show ?thesis using Some False by simp
    qed
  qed
  have "janet_sweep vm = Some (?vm3'\<lparr>threaded_refs := drop_refs ts (threaded_refs ?vm3'),
       heap := (\<lambda>a. if a \<in> set ?dt then None else heap ?vm3' a),
       finalized := finalized ?vm3' @ filter (block_is ?h abstract_finalizer) ?dt,
       threaded_abstracts := map (\<lambda>(a, v). (a, False)) (filter snd ts)\<rparr>)"
  proof -
    have sel: "weak_blocks vm = ?ws" "heap vm = mark_heap ?h L" "blocks ?vm2 = ?bs" "threaded_abstracts ?vm3 = ts"
      by (simp_all add: vm mark_state_def free_effects_def ts_def)
    show ?thesis
      unfolding janet_sweep_def
      by (simp only: 2 3 4 sel weak Option.bind.simps prod.case)
  qed
  moreover have "?vm3'\<lparr>threaded_refs := drop_refs ts (threaded_refs ?vm3'),
       heap := (\<lambda>a. if a \<in> set ?dt then None else heap ?vm3' a),
       finalized := finalized ?vm3' @ filter (block_is ?h abstract_finalizer) ?dt,
       threaded_abstracts := map (\<lambda>(a, v). (a, False)) (filter snd ts)\<rparr> =
    (free_effects ?h dead vm)\<lparr>
      heap := (\<lambda>a. case ?h a of None \<Rightarrow> None
        | Some ob \<Rightarrow> if gc_type ob = JANET_MEMORY_THREADED_ABSTRACT
           then (if a \<in> set ?dt then None else Some ob)
           else (if a \<in> L then Some (ob\<lparr>gc_data := drop_weak (kept_value ?h L) (gc_type ob)
                   (resolve ?h a (gc_data ob))\<rparr>) else None)),
      blocks := filter (\<lambda>a. a \<in> L) ?bs, weak_blocks := filter (\<lambda>a. a \<in> L) ?ws,
      block_count := block_count vm0 - length dead,
      threaded_abstracts := map (\<lambda>(a, v). (a, False)) (filter snd ts),
      threaded_refs := drop_refs ts ?refs,
      finalized := finalized vm0 @ filter (block_is ?h has_finalizer) dead @
        filter (block_is ?h abstract_finalizer) ?dt\<rparr>"
    unfolding heap dead
    by (rule JanetVM.equality)
      (auto simp add: free_effects_def vm mark_state_def intro!: filter_cong)
  ultimately show ?thesis by blast
qed

section \<open>The collection\<close>

lemma gc_live_cong:
  assumes "heap vm' = heap vm" "gc_roots vm' = gc_roots vm"
  shows "gc_live vm' = gc_live vm"
  by (intro ext) (simp add: gc_live_reach assms)

lemma gc_fuel_enough:
  assumes "vm_ok vm"
  shows "2 * card (dom (heap vm)) + 2 \<le> gc_fuel vm"
proof -
  have d: "dom (heap vm) = set (blocks vm) \<union> set (weak_blocks vm) \<union> set (map fst (threaded_abstracts vm))"
    using assms by (simp add: vm_ok_def blocks_ok_def)
  have "card (dom (heap vm)) \<le> card (set (blocks vm)) + card (set (weak_blocks vm)) +
      card (set (map fst (threaded_abstracts vm)))"
    unfolding d by (meson add_mono card_Un_le le_refl le_trans)
  also have "\<dots> \<le> length (blocks vm) + length (weak_blocks vm) + length (threaded_abstracts vm)"
    by (intro add_mono order_trans [OF card_length]) simp_all
  finally show ?thesis by (simp add: gc_fuel_def)
qed

lemma vm_at_phase:
  assumes "vm_at vm0 d M sp vm" "vm_ok (vm0\<lparr>gc_mark_phase := b\<rparr>)"
  shows "vm_at (vm0\<lparr>gc_mark_phase := b\<rparr>) d M sp (vm\<lparr>gc_mark_phase := b\<rparr>)"
proof -
  obtain k c where "vm = mark_state vm0 d M sp k c" "M \<subseteq> dom (heap vm0)"
    using assms(1) by (auto simp: vm_at_def)
  moreover have "(mark_state vm0 d M sp k c)\<lparr>gc_mark_phase := b\<rparr> = mark_state (vm0\<lparr>gc_mark_phase := b\<rparr>) d M sp k c"
    by (rule JanetVM.equality) (simp_all add: mark_state_def)
  ultimately show ?thesis using assms(2) by (auto simp: vm_at_def)
qed

lemma collect_collected:
  assumes ok: "vm_ok vm" and susp: "gc_suspend vm = 0"
  shows "\<exists>vm'. janet_collect vm = Some vm' \<and> collected vm vm'"
proof -
  let ?vm1 = "vm\<lparr>depth := JANET_RECURSION_GUARD, gc_mark_phase := True\<rparr>"
  define vm2 where "vm2 = (if block_count ?vm1 * 8 > gc_interval ?vm1
      then ?vm1\<lparr>gc_interval := block_count ?vm1 * sizeof_JanetGCObject\<rparr> else ?vm1)"
  have ok2: "vm_ok vm2 = vm_ok vm"
    unfolding vm2_def vm_ok_def blocks_ok_def roots_ok_def spawn_tasks_def by simp
  have same: "heap vm2 = heap vm" "gc_roots vm2 = gc_roots vm" "depth vm2 = Suc 1023"
    by (simp_all add: vm2_def gc_roots_def spawn_tasks_def JANET_RECURSION_GUARD_def)
  then have live: "gc_live vm2 = gc_live vm" by (intro gc_live_cong) simp_all
  let ?vm0 = "vm2\<lparr>orig_rootcount := length (roots vm2)\<rparr>"
  from mark_phase_live [of vm2, unfolded ok2, OF ok same(3), of "gc_fuel vm"] gc_fuel_enough [OF ok]
  obtain vm3 where 3: "janet_mark_phase (mark_fns (gc_fuel vm)) vm2 = Some vm3"
    "vm_at ?vm0 (Suc 1023) (live_set vm) [] vm3" by (auto simp: same live live_set_def)
  have ok0: "vm_ok ?vm0" using vm_at_sel(6) [OF 3(2)] .
  have "vm_ok (?vm0\<lparr>gc_mark_phase := False\<rparr>) = vm_ok ?vm0"
    unfolding vm_ok_def blocks_ok_def roots_ok_def spawn_tasks_def by simp
  with ok0 have ok0': "vm_ok (?vm0\<lparr>gc_mark_phase := False\<rparr>)" by simp
  have at: "vm_at (?vm0\<lparr>gc_mark_phase := False\<rparr>) (Suc 1023) (live_set vm) [] (vm3\<lparr>gc_mark_phase := False\<rparr>)"
    by (rule vm_at_phase [OF 3(2) ok0'])
  let ?vm0' = "?vm0\<lparr>gc_mark_phase := False\<rparr>"
  have f0: "heap ?vm0' = heap vm" "weak_blocks ?vm0' = weak_blocks vm" "blocks ?vm0' = blocks vm"
    "block_count ?vm0' = block_count vm" "threaded_abstracts ?vm0' = threaded_abstracts vm"
    "threaded_refs ?vm0' = threaded_refs vm" "finalized ?vm0' = finalized vm"
    by (simp_all add: vm2_def)
  note sw = sweep_marked [OF ok0' at, unfolded f0, folded dead_blocks_def, folded dead_threaded_def,
      folded survivor_def, folded collected_heap_def]
  from sw obtain vm4 where 4: "janet_sweep (vm3\<lparr>gc_mark_phase := False\<rparr>) = Some vm4" and
    vm4: "vm4 = (free_effects (heap vm) (dead_blocks vm) (vm3\<lparr>gc_mark_phase := False\<rparr>))\<lparr>
      heap := (\<lambda>a. collected_heap vm a),
      blocks := filter (\<lambda>a. a \<in> live_set vm) (blocks vm),
      weak_blocks := filter (\<lambda>a. a \<in> live_set vm) (weak_blocks vm),
      block_count := block_count vm - length (dead_blocks vm),
      threaded_abstracts := map (\<lambda>(a, v). (a, False))
       (filter snd (threaded_marks (threaded_abstracts vm) (live_set vm))),
      threaded_refs := drop_refs (threaded_marks (threaded_abstracts vm) (live_set vm)) (threaded_refs vm),
      finalized := finalized vm @ filter (block_is (heap vm) has_finalizer) (dead_blocks vm) @
        filter (block_is (heap vm) abstract_finalizer) (dead_threaded vm)\<rparr>"
    by blast
  have "janet_collect vm = Some (janet_free_all_scratch (vm4\<lparr>next_collection := 0\<rparr>))"
    using susp 3(1) 4 by (simp add: janet_collect_def vm2_def Let_def)
  moreover have "collected vm (janet_free_all_scratch (vm4\<lparr>next_collection := 0\<rparr>))"
  proof -
    from 3(2) obtain k c where vm3: "vm3 = mark_state ?vm0 (Suc 1023) (live_set vm) [] k c"
      by (auto simp: vm_at_def)
    have f: "symcache vm2 = symcache vm" "listener_count vm2 = listener_count vm" "roots vm2 = roots vm"
      "root_fiber vm2 = root_fiber vm" "top_dyns vm2 = top_dyns vm" "spawn_head vm2 = spawn_head vm"
      "spawn_tail vm2 = spawn_tail vm" "spawn_data vm2 = spawn_data vm" "tq vm2 = tq vm"
      "gc_suspend vm2 = gc_suspend vm" "scratch_mem vm2 = scratch_mem vm"
      "scratch_calls vm2 = scratch_calls vm"
      by (simp_all add: vm2_def)
    show ?thesis
      unfolding collected_def vm4 vm3
      by (simp add: free_effects_def mark_state_def janet_free_all_scratch_def spawn_tasks_def f same(1)
          JANET_RECURSION_GUARD_def conj_commute)
  qed
  ultimately show ?thesis by blast
qed

end
