(* ===== verification/Janet_Invariant_Proofs.thy ===== *)
theory Janet_Invariant_Proofs
  imports Janet_Collect_Proofs
begin

text \<open>
  A collection keeps the heap well formed: no block that is left refers to one that is gone.
  The statement is about the blocks the VM still has on its lists (\<open>own\<close>); a threaded abstract
  value it has given up may live on in another thread.
\<close>

definition own_addrs :: "JanetVM \<Rightarrow> addr set" where
  "own_addrs vm = set (blocks vm) \<union> set (weak_blocks vm) \<union> fst ` set (threaded_abstracts vm)"

definition own :: "JanetVM \<Rightarrow> JanetVM" where
  "own vm = vm\<lparr>heap := heap vm |` own_addrs vm\<rparr>"

section \<open>Live blocks are closed under references\<close>

lemma live_refs: "a \<in> live_set vm \<Longrightarrow> gc_refs (heap vm) a \<subseteq> live_set vm"
  by (auto simp: live_set_def intro: gc_live.intros)

lemma live_roots: "gc_roots vm \<subseteq> live_set vm"
  by (auto simp: live_set_def intro: gc_live.intros)

text \<open>What a live block looks like afterwards.\<close>

lemma own_live:
  assumes ok: "vm_ok vm" and col: "collected vm vm'" and a: "a \<in> live_set vm" "heap vm a = Some ob"
  shows "heap (own vm') a = Some (if gc_type ob = JANET_MEMORY_THREADED_ABSTRACT then ob else survivor vm a ob)"
proof (cases "gc_type ob = JANET_MEMORY_THREADED_ABSTRACT")
  case True
  from is_threaded [OF ok a(2) True] obtain v where v: "(a, v) \<in> set (threaded_abstracts vm)" by auto
  have t: "(a, True) \<in> set (threaded_marks (threaded_abstracts vm) (live_set vm))"
    using v a(1) by (force simp: threaded_marks_def)
  then have own: "a \<in> own_addrs vm'"
    using col by (force simp: own_addrs_def collected_def)
  have "distinct (map fst (threaded_marks (threaded_abstracts vm) (live_set vm)))"
    using ok by (simp add: vm_ok_def blocks_ok_def threaded_marks_fst)
  then have "(a, False) \<notin> set (threaded_marks (threaded_abstracts vm) (live_set vm))"
    using t by (metis eq_key_imp_eq_value)
  then have "a \<notin> set (dead_threaded vm)" by (auto simp: dead_threaded_def last_refs_def)
  with own True a(2) show ?thesis
    using col by (simp add: own_def collected_def collected_heap_def)
next
  case False
  have "a \<in> own_addrs vm'"
    using vm_ok_cases [OF ok a(2) False] a(1) col by (auto simp: own_addrs_def collected_def)
  with False a show ?thesis
    using col by (simp add: own_def collected_def collected_heap_def)
qed

lemma own_cases:
  assumes ok: "vm_ok vm" and col: "collected vm vm'" and a: "heap (own vm') a = Some ob'"
  obtains (live) ob where "a \<in> live_set vm" "heap vm a = Some ob"
      "gc_type ob \<noteq> JANET_MEMORY_THREADED_ABSTRACT" "ob' = survivor vm a ob"
  | (threaded) "heap vm a = Some ob'" "gc_type ob' = JANET_MEMORY_THREADED_ABSTRACT"
  using a col that
  by (auto simp: own_def restrict_map_def collected_def collected_heap_def split: if_splits option.splits)

lemma own_type:
  assumes "vm_ok vm" "collected vm vm'" "a \<in> live_set vm" "has_type (heap vm) tys a"
  shows "has_type (heap (own vm')) tys a"
proof -
  from assms(4) obtain ob where ob: "heap vm a = Some ob" "gc_type ob \<in> tys" by (rule has_type_Some)
  then show ?thesis using own_live [OF assms(1-3) ob(1)] by (auto simp: has_type_def survivor_def)
qed

lemma own_value:
  assumes "vm_ok vm" "collected vm vm'" "set_option (value_ref x) \<subseteq> live_set vm" "value_ok (heap vm) x"
  shows "value_ok (heap (own vm')) x"
  using assms(3,4) own_type [OF assms(1,2)] by (cases x) simp_all

lemma own_values:
  assumes "vm_ok vm" "collected vm vm'" "value_refs xs \<subseteq> live_set vm" "values_ok (heap vm) xs"
  shows "values_ok (heap (own vm')) xs"
  using assms(3,4) own_value [OF assms(1,2)]
  by (fastforce simp: values_ok_def list_all_iff value_refs_def)

lemma own_ptr:
  assumes "vm_ok vm" "collected vm vm'" "set_option p \<subseteq> live_set vm" "ptr_ok (heap vm) tys p"
  shows "ptr_ok (heap (own vm')) tys p"
  using assms(3,4) own_type [OF assms(1,2)] by (cases p) (simp_all add: ptr_ok_def)

section \<open>Code of live functions\<close>

lemma drop_weak_id: "\<not> (\<exists>xs. d = ArrayData xs) \<Longrightarrow> \<not> (\<exists>t. d = TableData t) \<Longrightarrow> drop_weak kept ty d = d"
  by (cases d) (auto simp: drop_weak_def)

lemma own_fiber:
  assumes "vm_ok vm" "collected vm vm'" "f \<in> live_set vm" "has_type (heap vm) {JANET_MEMORY_FIBER} f"
  shows "get_fiber (heap (own vm')) f = get_fiber (heap vm) f"
proof -
  from assms(4) obtain ob where ob: "heap vm f = Some ob" "gc_type ob \<in> {JANET_MEMORY_FIBER}" by (rule has_type_Some)
  with vm_ok_data [OF assms(1) ob(1)] obtain g where "gc_data ob = FiberData g"
    by (auto simp: data_ok_def split: gc_data.splits)
  then show ?thesis using own_live [OF assms(1-3) ob(1)] ob
    by (simp add: get_fiber_def survivor_def resolve_def drop_weak_id)
qed

lemma own_funcdef:
  assumes ok: "vm_ok vm" "collected vm vm'" "a \<in> live_set vm"
    and ob: "heap vm a = Some ob" "gc_data ob = FunctionData fn" "fn_def fn = Some d"
  shows "get_funcdef (heap (own vm')) a = get_funcdef (heap vm) a"
proof -
  from vm_ok_data [OF ok(1) ob(1)] ob(2) have ty: "gc_type ob = JANET_MEMORY_FUNCTION"
    and fn: "function_ok (heap vm) a fn" by (auto simp: data_ok_def)
  from fn ob(3) have "has_type (heap vm) {JANET_MEMORY_FUNCDEF} d" by (simp add: function_ok_def)
  then obtain dob where d: "heap vm d = Some dob" "gc_type dob \<in> {JANET_MEMORY_FUNCDEF}" by (rule has_type_Some)
  with vm_ok_data [OF ok(1) d(1)] obtain def where def: "gc_data dob = FuncDefData def"
    by (auto simp: data_ok_def split: gc_data.splits)
  have "d \<in> live_set vm" using live_refs [OF ok(3)] ob by (auto simp: gc_refs_def data_refs_def)
  from own_live [OF ok(1,2) this d(1)] own_live [OF ok ob(1)] show ?thesis
    using ob d def ty by (simp add: get_funcdef_def survivor_def resolve_def drop_weak_id)
qed

lemma resolved_again:
  assumes "janet_env_maybe_detach h a env = Some env'" "env_resolved h env'"
    and "\<And>f. env_as env' = AsFiber f \<Longrightarrow> get_fiber h' f = get_fiber h f"
  shows "janet_env_maybe_detach h' a env' = Some env'"
proof (cases "env_as env'")
  case (AsValues xs)
  then show ?thesis
    using assms(2) by (simp add: env_resolved_def janet_env_maybe_detach_def janet_env_valid_def)
next
  case (AsFiber f)
  then have pos: "env_offset env' > 0" using assms(2) by (simp add: env_resolved_def)
  from assms(1) obtain env1 where v: "janet_env_valid h a env = Some env1"
    and r: "(if env_offset env1 > 0 then
       (case env_as env1 of AsValues _ \<Rightarrow> None | AsFiber f \<Rightarrow> do {
          fiber \<leftarrow> get_fiber h f;
          if is_finished (fib_status fiber) then janet_env_detach h a env1 else Some env1 })
     else Some env1) = Some env'"
    by (auto simp: janet_env_maybe_detach_def split: bind_splits)
  have "env1 = env' \<and> (\<exists>fiber. get_fiber h f = Some fiber \<and> \<not> is_finished (fib_status fiber))"
    using r pos AsFiber
    by (auto simp: janet_env_detach_def split: if_splits env_as.splits bind_splits)
  then show ?thesis
    using pos AsFiber assms(3) by (auto simp: janet_env_maybe_detach_def janet_env_valid_def)
qed

section \<open>Survivors are well formed\<close>

lemma own_table:
  assumes ok: "vm_ok vm" and col: "collected vm vm'"
    and refs: "value_refs (table_values ty t) \<subseteq> live_set vm" and ty: "ty \<in> table_types"
    and vals: "values_ok (heap vm) (kv_values (tbl_data t))"
  shows "values_ok (heap (own vm'))
    (kv_values (tbl_data (drop_dead_pairs (kept_value (heap vm) (live_set vm)) ty t)))"
  unfolding values_ok_kvs list_all_iff
proof
  let ?kept = "kept_value (heap vm) (live_set vm)"
  have kept: "?kept x \<Longrightarrow> set_option (value_ref x) \<subseteq> live_set vm" for x
    by (auto simp: kept_value_eq split: option.splits)
  fix kv' assume "kv' \<in> set (tbl_data (drop_dead_pairs ?kept ty t))"
  then obtain kv where kv: "kv \<in> set (tbl_data t)"
    and kv': "kv' = (if dead_pair ?kept ty kv then tombstone else kv)"
    by (auto simp: drop_dead_pairs_def Let_def)
  show "value_ok (heap (own vm')) (kv_key kv') \<and> value_ok (heap (own vm')) (kv_value kv')"
  proof (cases "dead_pair ?kept ty kv")
    case True
    then show ?thesis using kv' by (simp add: tombstone_def)
  next
    case False
    have strong: "ty \<noteq> JANET_MEMORY_TABLE_WEAKKV \<Longrightarrow> ty \<noteq> JANET_MEMORY_TABLE_WEAKK \<Longrightarrow>
        set_option (value_ref (kv_key kv)) \<subseteq> live_set vm"
      "ty \<noteq> JANET_MEMORY_TABLE_WEAKKV \<Longrightarrow> ty \<noteq> JANET_MEMORY_TABLE_WEAKV \<Longrightarrow>
        set_option (value_ref (kv_value kv)) \<subseteq> live_set vm"
      using refs ty kv by (auto simp: table_values_def value_refs_map value_refs_kvs split: if_splits)
    have "set_option (value_ref (kv_key kv)) \<subseteq> live_set vm"
      using False strong(1) kept ty by (auto simp: dead_pair_def checks_keys_def)
    moreover have "set_option (value_ref (kv_value kv)) \<subseteq> live_set vm"
      using False strong(2) kept ty by (auto simp: dead_pair_def checks_values_def)
    ultimately show ?thesis
      using False kv' vals kv own_value [OF ok col] by (simp add: values_ok_kvs list_all_iff)
  qed
qed

lemma own_array:
  assumes ok: "vm_ok vm" and col: "collected vm vm'" and vals: "values_ok (heap vm) xs"
  shows "values_ok (heap (own vm')) (map (\<lambda>x. if kept_value (heap vm) (live_set vm) x then x else JANET_NIL) xs)"
proof -
  have "value_ok (heap (own vm')) x" if "kept_value (heap vm) (live_set vm) x" "x \<in> set xs" for x
    using vals that by (intro own_value [OF ok col])
      (auto simp: kept_value_eq values_ok_def list_all_iff split: option.splits)
  then show ?thesis by (auto simp: values_ok_def list_all_iff)
qed

lemma own_fiber_ok:
  assumes ok: "vm_ok vm" and col: "collected vm vm'" and f: "fiber_ok (heap vm) f"
    and refs: "fiber_refs f \<subseteq> live_set vm"
  shows "fiber_ok (heap (own vm')) f"
proof -
  obtain xs where xs: "fiber_values f = Some xs" "values_ok (heap vm) xs"
    using f by (auto simp: fiber_ok_def split: option.splits)
  have "values_ok (heap (own vm')) xs"
    using refs xs by (intro own_values [OF ok col]) (auto simp: fiber_refs_def)
  moreover have "ptr_ok (heap (own vm')) {JANET_MEMORY_FUNCTION} (fr_func fr) \<and>
      ptr_ok (heap (own vm')) {JANET_MEMORY_FUNCENV} (fr_env fr)" if "fr \<in> set (fib_frames f)" for fr
    using refs f that by (intro conjI own_ptr [OF ok col]) (auto simp: fiber_refs_def fiber_ok_def list_all_iff)
  moreover have "ptr_ok (heap (own vm')) table_types (fib_env f)"
    "ptr_ok (heap (own vm')) abstract_types (fib_supervisor_channel f)"
    "ptr_ok (heap (own vm')) abstract_types (fib_ev_stream f)"
    "ptr_ok (heap (own vm')) {JANET_MEMORY_FIBER} (fib_child f)"
    using refs f by (intro own_ptr [OF ok col]; auto simp: fiber_refs_def fiber_ok_def)+
  ultimately show ?thesis by (simp add: fiber_ok_def xs(1) list_all_iff)
qed

lemma own_env_ok:
  assumes ok: "vm_ok vm" and col: "collected vm vm'" and env: "env_ok (heap vm) a env"
    and refs: "(case janet_env_maybe_detach (heap vm) a env of None \<Rightarrow> {} | Some env' \<Rightarrow> env_refs env') \<subseteq> live_set vm"
  shows "env_ok (heap (own vm')) a (the (janet_env_maybe_detach (heap vm) a env))"
proof -
  from env obtain env' where env': "janet_env_maybe_detach (heap vm) a env = Some env'"
    "env_resolved (heap vm) env'" by (auto simp: env_ok_def split: option.splits)
  have r: "env_refs env' \<subseteq> live_set vm" using refs env'(1) by simp
  have again: "janet_env_maybe_detach (heap (own vm')) a env' = Some env'"
  proof (rule resolved_again [OF env'])
    fix f assume "env_as env' = AsFiber f"
    then show "get_fiber (heap (own vm')) f = get_fiber (heap vm) f"
      using r env'(2) by (intro own_fiber [OF ok col]) (auto simp: env_refs_def env_resolved_def)
  qed
  have "env_resolved (heap (own vm')) env'"
  proof (cases "env_as env'")
    case (AsFiber f)
    then show ?thesis using r env'(2) own_type [OF ok col] by (simp add: env_resolved_def env_refs_def)
  next
    case (AsValues xs)
    then show ?thesis using r env'(2) own_values [OF ok col] by (simp add: env_resolved_def env_refs_def)
  qed
  then show ?thesis using again by (simp add: env_ok_def env'(1))
qed

lemma own_function_ok:
  assumes ok: "vm_ok vm" and col: "collected vm vm'" and a: "a \<in> live_set vm"
    and ob: "heap vm a = Some ob" "gc_data ob = FunctionData fn"
    and fn: "function_ok (heap vm) a fn"
  shows "function_ok (heap (own vm')) a fn"
proof (cases "fn_def fn")
  case None
  then show ?thesis by (simp add: function_ok_def)
next
  case (Some d)
  note same = own_funcdef [OF ok col a ob Some]
  have "gc_refs (heap vm) a = insert d (set (function_envs (heap vm) a fn))"
    using ob Some by (simp add: gc_refs_def data_refs_def)
  with live_refs [OF a] have refs: "d \<in> live_set vm" "set (function_envs (heap vm) a fn) \<subseteq> live_set vm" by simp_all
  have "function_envs (heap (own vm')) a fn = function_envs (heap vm) a fn"
    by (simp add: function_envs_def same)
  then show ?thesis
    using fn Some refs own_type [OF ok col]
    by (auto simp: function_ok_def same list_all_iff)
qed

lemma own_funcdef_ok:
  assumes ok: "vm_ok vm" and col: "collected vm vm'" and d: "funcdef_ok (heap vm) def"
    and refs: "funcdef_refs def \<subseteq> live_set vm"
  shows "funcdef_ok (heap (own vm')) def"
proof -
  have "values_ok (heap (own vm')) (def_constants def)"
    using d refs by (intro own_values [OF ok col]) (auto simp: funcdef_ok_def funcdef_refs_def)
  moreover have "ptr_ok (heap (own vm')) string_types (def_source def)"
    "ptr_ok (heap (own vm')) string_types (def_name def)"
    using d refs by (intro own_ptr [OF ok col]; auto simp: funcdef_ok_def funcdef_refs_def)+
  ultimately show ?thesis
    using d refs own_type [OF ok col] by (auto simp: funcdef_ok_def funcdef_refs_def list_all_iff)
qed

lemma survivor_data_ok:
  assumes ok: "vm_ok vm" and col: "collected vm vm'" and a: "a \<in> live_set vm"
    and ob: "heap vm a = Some ob" "gc_type ob \<noteq> JANET_MEMORY_THREADED_ABSTRACT"
  shows "data_ok (heap (own vm')) a (gc_type ob) (gc_data (survivor vm a ob))"
proof -
  note d = vm_ok_data [OF ok ob(1)]
  have refs: "data_refs (heap vm) a (gc_type ob) (gc_data ob) \<subseteq> live_set vm"
    using live_refs [OF a] ob(1) by (simp add: gc_refs_def)
  show ?thesis
  proof (cases "gc_data ob")
    case (ArrayData xs)
    have "gc_type ob = JANET_MEMORY_ARRAY_WEAK \<or> gc_type ob = JANET_MEMORY_ARRAY"
      using d ArrayData by (auto simp: data_ok_def)
    then show ?thesis using d refs ArrayData own_array [OF ok col] own_values [OF ok col]
      by (elim disjE) (simp_all add: data_ok_def data_refs_def survivor_def resolve_def drop_weak_def)
  next
    case (TupleData xs)
    then show ?thesis using d refs own_values [OF ok col]
      by (simp add: data_ok_def data_refs_def survivor_def resolve_def drop_weak_def)
  next
    case (TableData t)
    then show ?thesis using d refs own_table [OF ok col, of "gc_type ob" t] own_ptr [OF ok col, of "tbl_proto t" table_types]
      by (simp add: data_ok_def data_refs_def survivor_def resolve_def drop_weak_def)
        (simp add: drop_dead_pairs_def Let_def)
  next
    case (StructData kvs p)
    then show ?thesis using d refs own_values [OF ok col] own_ptr [OF ok col]
      by (simp add: data_ok_def data_refs_def survivor_def resolve_def drop_weak_def)
  next
    case (FiberData f)
    then show ?thesis using d refs own_fiber_ok [OF ok col]
      by (simp add: data_ok_def data_refs_def survivor_def resolve_def drop_weak_def)
  next
    case (FunctionData fn)
    then show ?thesis using d own_function_ok [OF ok col a ob(1)]
      by (simp add: data_ok_def survivor_def resolve_def drop_weak_def)
  next
    case (FuncEnvData env)
    then show ?thesis using d refs own_env_ok [OF ok col, of a env]
      by (simp add: data_ok_def data_refs_def survivor_def resolve_def drop_weak_def)
  next
    case (FuncDefData def)
    then show ?thesis using d refs own_funcdef_ok [OF ok col]
      by (simp add: data_ok_def data_refs_def survivor_def resolve_def drop_weak_def)
  next
    case (AbstractData g f)
    then show ?thesis using d refs ob(2) own_values [OF ok col]
      by (auto simp: data_ok_def data_refs_def survivor_def resolve_def drop_weak_def split: option.splits)
  qed (use d in \<open>simp_all add: data_ok_def survivor_def resolve_def drop_weak_def\<close>)
qed

lemma own_heap_ok:
  assumes ok: "vm_ok vm" and col: "collected vm vm'"
  shows "heap_ok (heap (own vm')) \<and> unmarked (heap (own vm'))"
proof -
  have "ob_ok (heap (own vm')) a ob' \<and> \<not> gc_reachable ob'" if a: "heap (own vm') a = Some ob'" for a ob'
  proof (cases rule: own_cases [OF ok col a])
    case (1 ob)
    have "\<not> gc_disabled ob" "\<not> gc_reachable ob"
      using heap_ok_data [of "heap vm" a ob] unmarkedD [of "heap vm" a ob] ok 1(2) by (simp_all add: vm_ok_def)
    then show ?thesis
      using survivor_data_ok [OF ok col 1(1-3)] 1(4) by (simp add: ob_ok_def survivor_def)
  next
    case 2
    have h: "heap_ok (heap vm)" "unmarked (heap vm)" using ok by (simp_all add: vm_ok_def)
    have "\<not> gc_disabled ob'" "\<not> gc_reachable ob'"
      using heap_ok_data [OF h(1) 2(1)] unmarkedD [OF h(2) 2(1)] by simp_all
    moreover have "data_ok (heap (own vm')) a (gc_type ob') (gc_data ob')"
      using vm_ok_data [OF ok 2(1)] 2(2) by (auto simp: data_ok_def split: gc_data.splits option.splits)
    ultimately show ?thesis by (simp add: ob_ok_def)
  qed
  then show ?thesis by (auto simp: heap_ok_def unmarked_def split: option.splits)
qed

lemma own_roots_ok:
  assumes ok: "vm_ok vm" and col: "collected vm vm'"
  shows "roots_ok (own vm')"
proof -
  have r: "roots_ok vm" using ok by (simp add: vm_ok_def)
  have l: "gc_roots vm \<subseteq> live_set vm" by (rule live_roots)
  have "spawn_tasks (own vm') = spawn_tasks vm'" by (simp add: own_def spawn_tasks_def)
  then have same: "spawn_tasks (own vm') = spawn_tasks vm" "tq (own vm') = tq vm" "root_fiber (own vm') = root_fiber vm"
    "top_dyns (own vm') = top_dyns vm" "roots (own vm') = roots vm"
    using col by (simp_all add: own_def collected_def)
  have "task_ok (heap (own vm')) t" if "t \<in> set (spawn_tasks vm)" for t
  proof -
    have "task_refs t \<subseteq> live_set vm" "task_ok (heap vm) t"
      using l r that by (auto simp: gc_roots_def roots_ok_def list_all_iff)
    then show ?thesis using own_type [OF ok col] own_value [OF ok col] by (simp add: task_ok_def task_refs_def)
  qed
  moreover have "timeout_ok (heap (own vm')) t" if "t \<in> set (tq vm)" for t
  proof -
    have "timeout_refs t \<subseteq> live_set vm" "timeout_ok (heap vm) t"
      using l r that by (auto simp: gc_roots_def roots_ok_def list_all_iff)
    then show ?thesis using own_type [OF ok col] own_ptr [OF ok col] by (simp add: timeout_ok_def timeout_refs_def)
  qed
  moreover have "ptr_ok (heap (own vm')) {JANET_MEMORY_FIBER} (root_fiber vm)"
    "ptr_ok (heap (own vm')) table_types (top_dyns vm)" "values_ok (heap (own vm')) (roots vm)"
    using l r own_ptr [OF ok col] own_values [OF ok col] by (auto simp: gc_roots_def roots_ok_def)
  ultimately show ?thesis using r by (simp add: roots_ok_def same list_all_iff)
qed

lemma own_blocks_ok:
  assumes ok: "vm_ok vm" and col: "collected vm vm'"
  shows "blocks_ok (own vm')"
proof -
  let ?L = "live_set vm" and ?ts = "threaded_marks (threaded_abstracts vm) (live_set vm)"
  have b: "blocks_ok vm" using ok by (simp add: vm_ok_def)
  have lists: "blocks (own vm') = filter (\<lambda>a. a \<in> ?L) (blocks vm)"
    "weak_blocks (own vm') = filter (\<lambda>a. a \<in> ?L) (weak_blocks vm)"
    "threaded_abstracts (own vm') = map (\<lambda>(a, v). (a, False)) (filter snd ?ts)"
    "block_count (own vm') = block_count vm - length (dead_blocks vm)"
    using col by (simp_all add: own_def collected_def)
  have keys: "map fst (threaded_abstracts (own vm')) = map fst (filter snd ?ts)"
    by (simp add: lists comp_def case_prod_beta)
  have dts: "distinct (map fst ?ts)" using b by (simp add: threaded_marks_fst blocks_ok_def)
  then have dk: "distinct (map fst (threaded_abstracts (own vm')))"
    unfolding keys by (rule distinct_map_filter)
  have own: "own_addrs (own vm') = own_addrs vm'" by (simp add: own_addrs_def own_def)
  have thr: "\<exists>ob. heap (own vm') a = Some ob \<and> gc_type ob = JANET_MEMORY_THREADED_ABSTRACT"
    if a: "a \<in> fst ` set (threaded_abstracts (own vm'))" for a
  proof -
    from a have t: "(a, True) \<in> set ?ts" by (force simp: lists)
    then have "(a, False) \<notin> set ?ts" using dts by (metis eq_key_imp_eq_value)
    then have nd: "a \<notin> set (dead_threaded vm)" by (auto simp: dead_threaded_def last_refs_def)
    have "a \<in> fst ` set (threaded_abstracts vm)"
      using t by (metis fst_conv image_eqI list.set_map threaded_marks_fst)
    then have "has_type (heap vm) {JANET_MEMORY_THREADED_ABSTRACT} a" using b unfolding blocks_ok_def by blast
    then obtain ob where "heap vm a = Some ob" "gc_type ob = JANET_MEMORY_THREADED_ABSTRACT"
      by (rule has_type_Some) simp
    moreover have "a \<in> own_addrs vm'" using a own own_addrs_def [of "own vm'"] by blast
    ultimately show ?thesis using nd col by (simp add: own_def collected_def collected_heap_def)
  qed
  have blk: "\<exists>ob. heap vm a = Some ob \<and> heap (own vm') a = Some (survivor vm a ob)"
    if "a \<in> ?L" "a \<in> set (blocks vm) \<union> set (weak_blocks vm)" for a
    using vm_ok_block [OF ok that(2)] own_live [OF ok col that(1)] by metis
  have dom: "dom (heap (own vm')) = own_addrs (own vm')"
  proof
    show "dom (heap (own vm')) \<subseteq> own_addrs (own vm')"
      unfolding own by (auto simp: own_def restrict_map_def split: if_splits)
    show "own_addrs (own vm') \<subseteq> dom (heap (own vm'))"
    proof
      fix a assume a: "a \<in> own_addrs (own vm')"
      show "a \<in> dom (heap (own vm'))"
      proof (cases "a \<in> fst ` set (threaded_abstracts (own vm'))")
        case True
        then show ?thesis using thr [OF True] by blast
      next
        case False
        with a have "a \<in> set (blocks (own vm')) \<union> set (weak_blocks (own vm'))"
          by (simp add: own_addrs_def)
        then have "a \<in> ?L" "a \<in> set (blocks vm) \<union> set (weak_blocks vm)" by (auto simp: lists)
        from blk [OF this] show ?thesis by blast
      qed
    qed
  qed
  have "\<forall>a\<in>set (weak_blocks (own vm')). has_type (heap (own vm')) {ty. is_weak_type ty} a"
    using b own_type [OF ok col] by (auto simp: lists blocks_ok_def)
  moreover have "\<not> has_type (heap (own vm')) {ty. is_weak_type ty \<or> ty = JANET_MEMORY_THREADED_ABSTRACT} a"
    if a: "a \<in> set (blocks (own vm'))" for a
  proof -
    have l: "a \<in> ?L" "a \<in> set (blocks vm) \<union> set (weak_blocks vm)" using a by (auto simp: lists)
    from blk [OF l] obtain ob where "heap vm a = Some ob" "heap (own vm') a = Some (survivor vm a ob)" by blast
    then show ?thesis using b a by (auto simp: lists blocks_ok_def has_type_def survivor_def)
  qed
  moreover have "block_count (own vm') = length (blocks (own vm')) + length (weak_blocks (own vm'))"
  proof -
    have "length (filter (\<lambda>a. a \<in> ?L) xs) + length (filter (\<lambda>a. a \<notin> ?L) xs) = length xs" for xs
      by (rule sum_length_filter_compl)
    from this [of "blocks vm"] this [of "weak_blocks vm"] show ?thesis
      using b by (simp add: lists dead_blocks_def blocks_ok_def)
  qed
  moreover have "\<forall>a\<in>fst ` set (threaded_abstracts (own vm')). has_type (heap (own vm')) {JANET_MEMORY_THREADED_ABSTRACT} a"
    using thr by (fastforce simp: has_type_def)
  ultimately show ?thesis
    using b dk dom by (simp add: blocks_ok_def own_addrs_def lists(1,2))
qed

lemma collect_ok:
  "vm_ok vm \<Longrightarrow> collected vm vm' \<Longrightarrow> vm_ok (own vm')"
  using own_heap_ok own_roots_ok own_blocks_ok by (simp add: vm_ok_def)

end
