(* ===== verification/Janet_GC_Properties.thy ===== *)
theory Janet_GC_Properties
  imports Janet_Invariant_Proofs "HOL-Library.Multiset"
begin

text \<open>
  What a collection of the Janet VM guarantees, with the example VM on which the properties are
  applied.
\<close>

section \<open>An example\<close>

text \<open>
  The root fiber is block 0. The table of top-level dynamic bindings is block 1, with a keyword
  (2) for a string (3). Block 4 is a table with weak values, a root, that maps the keyword to
  the string and \<open>true\<close> to a string nobody else refers to (5). Block 6 is an abstract value
  with a finalizer, and garbage; block 7 is a weak array that holds a threaded abstract value (8),
  which is a root as well; block 9 is a threaded abstract value nobody refers to. There are two
  blocks of scratch memory, the first with a finalizer.
\<close>

definition ex_table :: JanetTable where
  "ex_table = \<lparr>tbl_count = 2, tbl_deleted = 0, tbl_data =
     [\<lparr>kv_key = JANET_KEYWORD 2, kv_value = JANET_STRING 3\<rparr>,
      \<lparr>kv_key = JANET_BOOLEAN True, kv_value = JANET_STRING 5\<rparr>], tbl_proto = None\<rparr>"

definition ex_fiber :: JanetFiber where
  "ex_fiber = \<lparr>fib_status = JANET_STATUS_ALIVE, fib_stackstart = 4, fib_stacktop = 4,
     fib_data = replicate 4 JANET_NIL, fib_frames = [], fib_env = None, fib_child = None,
     fib_last_value = JANET_NIL, fib_supervisor_channel = None, fib_ev_stream = None,
     fib_ev_callback = None, fib_ev_state = False, fib_in_flight = False\<rparr>"

definition gc_block :: "JanetMemoryType \<Rightarrow> gc_data \<Rightarrow> JanetGCObject" where
  "gc_block ty d = \<lparr>gc_type = ty, gc_reachable = False, gc_disabled = False, gc_data = d\<rparr>"

definition ex_heap :: heap where
  "ex_heap = [0 \<mapsto> gc_block JANET_MEMORY_FIBER (FiberData ex_fiber),
     1 \<mapsto> gc_block JANET_MEMORY_TABLE (TableData \<lparr>tbl_count = 1, tbl_deleted = 0,
       tbl_data = [\<lparr>kv_key = JANET_KEYWORD 2, kv_value = JANET_STRING 3\<rparr>], tbl_proto = None\<rparr>),
     2 \<mapsto> gc_block JANET_MEMORY_SYMBOL StringData,
     3 \<mapsto> gc_block JANET_MEMORY_STRING StringData,
     4 \<mapsto> gc_block JANET_MEMORY_TABLE_WEAKV (TableData ex_table),
     5 \<mapsto> gc_block JANET_MEMORY_STRING StringData,
     6 \<mapsto> gc_block JANET_MEMORY_ABSTRACT (AbstractData None True),
     7 \<mapsto> gc_block JANET_MEMORY_ARRAY_WEAK (ArrayData [JANET_ABSTRACT 8, JANET_STRING 3]),
     8 \<mapsto> gc_block JANET_MEMORY_THREADED_ABSTRACT (AbstractData None False),
     9 \<mapsto> gc_block JANET_MEMORY_THREADED_ABSTRACT (AbstractData None True)]"

definition ex_vm :: JanetVM where
  "ex_vm = \<lparr>heap = ex_heap, blocks = [0, 1, 2, 3, 5, 6], weak_blocks = [4, 7], block_count = 8,
     gc_interval = 1000, next_collection = 0, gc_suspend = 0, gc_mark_phase = False,
     roots = [JANET_TABLE 4, JANET_ARRAY 7, JANET_ABSTRACT 8], root_capacity = 3, root_fiber = Some 0,
     top_dyns = Some 1, spawn_head = 0, spawn_tail = 0, spawn_data = [], tq = [],
     threaded_abstracts = [(8, False), (9, False)], threaded_refs = (\<lambda>_. 1), listener_count = 0,
     symcache = [2], finalized = [],
     scratch_mem = [(64, Some 3), (80, None)], scratch_calls = [], depth = 0, orig_rootcount = 0\<rparr>"

lemmas ok_defs = heap_ok_def ob_ok_def data_ok_def unmarked_def fiber_ok_def fiber_values_def slots_def
  ptr_ok_def has_type_def kv_values_def values_ok_def gc_block_def

lemma ex_vm_ok: "vm_ok ex_vm"
proof -
  have "heap_ok ex_heap" "unmarked ex_heap"
    by (simp_all add: ok_defs ex_heap_def ex_table_def ex_fiber_def)
  moreover have "blocks_ok ex_vm"
    by (simp add: blocks_ok_def ex_vm_def ex_heap_def has_type_def gc_block_def is_weak_type_def) auto
  moreover have "roots_ok ex_vm"
    by (simp add: roots_ok_def ex_vm_def ex_heap_def spawn_tasks_def ok_defs)
  ultimately show ?thesis by (simp add: vm_ok_def ex_vm_def)
qed

lemma ex_gc_refs:
  "gc_refs ex_heap 0 = {}" "gc_refs ex_heap 1 = {2, 3}" "gc_refs ex_heap 2 = {}" "gc_refs ex_heap 3 = {}"
  "gc_refs ex_heap 4 = {2}" "gc_refs ex_heap 7 = {}" "gc_refs ex_heap 8 = {}"
  by (simp_all add: gc_refs_def ex_heap_def data_refs_def gc_block_def ex_table_def ex_fiber_def
      fiber_refs_def fiber_values_def slots_def table_values_def kv_values_def insert_commute)

lemma ex_gc_roots: "gc_roots ex_vm = {0, 1, 4, 7, 8}"
  by (simp add: gc_roots_def ex_vm_def spawn_tasks_def) auto

lemma ex_live_set: "live_set ex_vm = {0, 1, 2, 3, 4, 7, 8}"
proof (intro set_eqI iffI)
  fix a assume "a \<in> live_set ex_vm"
  then have "gc_live ex_vm a" by (simp add: live_set_def)
  then show "a \<in> {0, 1, 2, 3, 4, 7, 8}"
  proof induction
    case (gc_live_step a c)
    moreover have "heap ex_vm = ex_heap" by (simp add: ex_vm_def)
    ultimately show ?case using ex_gc_refs by auto
  qed (auto simp: ex_gc_roots)
next
  have "gc_live ex_vm r" if "r \<in> {0, 1, 4, 7, 8}" for r using that by (intro gc_live_root) (simp add: ex_gc_roots)
  moreover have "gc_live ex_vm c" if "c \<in> {2, 3}" for c
  proof (rule gc_live_step [OF gc_live_root])
    show "1 \<in> gc_roots ex_vm" by (simp add: ex_gc_roots)
    show "c \<in> gc_refs (heap ex_vm) 1" using that ex_gc_refs(2) by (auto simp: ex_vm_def)
  qed
  ultimately show "a \<in> {0, 1, 2, 3, 4, 7, 8} \<Longrightarrow> a \<in> live_set ex_vm" for a
    by (auto simp: live_set_def)
qed

section \<open>Collection\<close>

lemma collect_result:
  assumes "vm_ok vm" "gc_suspend vm = 0" "janet_collect vm = Some vm'"
  shows "collected vm vm'"
  using collect_collected [OF assms(1,2)] assms(3) by auto

lemma ex_collect: "\<exists>vm'. janet_collect ex_vm = Some vm' \<and> collected ex_vm vm'"
  by (rule collect_collected [OF ex_vm_ok]) (simp add: ex_vm_def)

lemma mem_live_set [simp]: "a \<in> live_set vm \<longleftrightarrow> gc_live vm a"
  by (simp add: live_set_def)

lemma ex_gc_live: "gc_live ex_vm a \<longleftrightarrow> a \<in> {0, 1, 2, 3, 4, 7, 8}"
  using ex_live_set by (metis mem_live_set)

text \<open>C20: a collection returns, for any well-formed VM whose collector is not suspended, and keeps
  exactly the blocks that can be reached from the pending tasks and timeouts, the root fiber, the
  table of top-level dynamic bindings and the explicit roots. The block lists and the block
  counter agree with what is left.\<close>

theorem gc_collect_exact:
  assumes "vm_ok vm" "gc_suspend vm = 0"
  shows "\<exists>vm'. janet_collect vm = Some vm' \<and>
    (\<forall>a ob. heap vm a = Some ob \<and> gc_type ob \<noteq> JANET_MEMORY_THREADED_ABSTRACT \<longrightarrow>
       (heap vm' a \<noteq> None \<longleftrightarrow> gc_live vm a)) \<and>
    (\<forall>a. heap vm a = None \<longrightarrow> heap vm' a = None) \<and>
    blocks vm' = filter (gc_live vm) (blocks vm) \<and>
    weak_blocks vm' = filter (gc_live vm) (weak_blocks vm) \<and>
    block_count vm' = length (blocks vm') + length (weak_blocks vm')"
proof -
  from collect_collected [OF assms] obtain vm' where c: "janet_collect vm = Some vm'" "collected vm vm'" by blast
  have "block_count (own vm') = length (blocks (own vm')) + length (weak_blocks (own vm'))"
    using collect_ok [OF assms(1) c(2)] by (simp add: vm_ok_def blocks_ok_def)
  then show ?thesis using c by (auto simp: collected_def collected_heap_def own_def split: if_splits)
qed

theorem gc_collect_exact_witness:
  "\<exists>vm'. janet_collect ex_vm = Some vm' \<and> heap vm' 3 \<noteq> None \<and> heap vm' 5 = None \<and> heap vm' 6 = None \<and>
     blocks vm' = [0, 1, 2, 3] \<and> weak_blocks vm' = [4, 7] \<and> block_count vm' = 6"
proof -
  have s: "gc_suspend ex_vm = 0" "blocks ex_vm = [0, 1, 2, 3, 5, 6]" "weak_blocks ex_vm = [4, 7]"
    by (simp_all add: ex_vm_def)
  have h: "heap ex_vm 3 = Some (gc_block JANET_MEMORY_STRING StringData)"
    "heap ex_vm 5 = Some (gc_block JANET_MEMORY_STRING StringData)"
    "heap ex_vm 6 = Some (gc_block JANET_MEMORY_ABSTRACT (AbstractData None True))"
    by (simp_all add: ex_vm_def ex_heap_def)
  from gc_collect_exact [OF ex_vm_ok s(1)] obtain vm' where vm': "janet_collect ex_vm = Some vm'"
    "\<And>a ob. heap ex_vm a = Some ob \<Longrightarrow> gc_type ob \<noteq> JANET_MEMORY_THREADED_ABSTRACT \<Longrightarrow>
       (heap vm' a \<noteq> None \<longleftrightarrow> gc_live ex_vm a)"
    "blocks vm' = filter (gc_live ex_vm) (blocks ex_vm)" "weak_blocks vm' = filter (gc_live ex_vm) (weak_blocks ex_vm)"
    "block_count vm' = length (blocks vm') + length (weak_blocks vm')" by blast
  show ?thesis
    using vm'(1,3-5) vm'(2) [OF h(1)] vm'(2) [OF h(2)] vm'(2) [OF h(3)] s
    by (auto simp: ex_gc_live gc_block_def)
qed

text \<open>C24: a live block that is neither weak nor a function environment is not touched by a
  collection, and neither are the roots, the root fiber, the dynamic bindings, the tasks and the
  timeouts.\<close>

theorem gc_survivors_intact:
  assumes "vm_ok vm" "gc_suspend vm = 0" "janet_collect vm = Some vm'" "gc_live vm a"
    and "heap vm a = Some ob" "\<not> is_weak_type (gc_type ob)" "gc_type ob \<noteq> JANET_MEMORY_FUNCENV"
  shows "heap vm' a = Some ob \<and> roots vm' = roots vm \<and> root_fiber vm' = root_fiber vm \<and>
    top_dyns vm' = top_dyns vm \<and> spawn_tasks vm' = spawn_tasks vm \<and> tq vm' = tq vm"
proof -
  note col = collect_result [OF assms(1-3)]
  have "resolve (heap vm) a (gc_data ob) = gc_data ob"
    using vm_ok_data [OF assms(1,5)] assms(7)
    by (intro resolve_id) (auto simp: data_ok_def)
  moreover have "heap (own vm') a = heap vm' a" if "heap (own vm') a \<noteq> None"
    using that by (auto simp: own_def restrict_map_def split: if_splits)
  ultimately have "heap vm' a = Some ob"
    using own_live [OF assms(1) col _ assms(5)] assms(4,6)
    by (auto simp: survivor_def drop_weak_strong split: if_splits)
  then show ?thesis using col by (simp add: collected_def)
qed

theorem gc_survivors_intact_witness:
  "\<exists>vm'. janet_collect ex_vm = Some vm' \<and> heap vm' 1 = ex_heap 1"
proof -
  obtain vm' where vm': "janet_collect ex_vm = Some vm'" using ex_collect by blast
  have "heap vm' 1 = Some (gc_block JANET_MEMORY_TABLE (TableData \<lparr>tbl_count = 1, tbl_deleted = 0,
       tbl_data = [\<lparr>kv_key = JANET_KEYWORD 2, kv_value = JANET_STRING 3\<rparr>], tbl_proto = None\<rparr>))"
    by (rule conjunct1 [OF gc_survivors_intact [OF ex_vm_ok _ vm']])
      (simp_all add: ex_gc_live, simp_all add: ex_vm_def ex_heap_def gc_block_def is_weak_type_def)
  then show ?thesis using vm' by (simp add: ex_heap_def)
qed

text \<open>C21: a collection leaves no dangling pointer: of the blocks the VM still has on its lists
  every reference, strong or weak, leads to such a block of the right kind, all flags are
  cleared, and the next collection can start from there.\<close>

theorem gc_no_dangling:
  assumes "vm_ok vm" "gc_suspend vm = 0"
  shows "\<exists>vm'. janet_collect vm = Some vm' \<and> vm_ok (own vm')"
  using collect_collected [OF assms] collect_ok [OF assms(1)] by blast

theorem gc_no_dangling_witness:
  "\<exists>vm'. janet_collect ex_vm = Some vm' \<and> vm_ok (own vm')"
  by (rule gc_no_dangling [OF ex_vm_ok]) (simp add: ex_vm_def)

text \<open>C25: weak references. A live weak array keeps the references to live blocks and has nil for
  the others; in a live weak table the pairs whose weak part is dead become tombstones and the
  others stay, and the counters of pairs and tombstones move by their number. The exception is a
  threaded abstract value: an array element or a pair with such a weak part is dropped although the
  value may be live (a defect of the code, \<open>gc_weak_threaded_dropped\<close>).\<close>

theorem gc_weak_references:
  assumes "vm_ok vm" "gc_suspend vm = 0" "janet_collect vm = Some vm'" "gc_live vm a" "heap vm a = Some ob"
  shows "let kept = (\<lambda>x. live_value {b. gc_live vm b} x \<and> \<not> threaded_value (heap vm) x) in
    (gc_type ob = JANET_MEMORY_ARRAY_WEAK \<longrightarrow> (\<exists>xs. gc_data ob = ArrayData xs \<and>
      heap vm' a = Some (ob\<lparr>gc_data := ArrayData (map (\<lambda>x. if kept x then x else JANET_NIL) xs)\<rparr>))) \<and>
    (gc_type ob \<in> {JANET_MEMORY_TABLE_WEAKK, JANET_MEMORY_TABLE_WEAKV, JANET_MEMORY_TABLE_WEAKKV} \<longrightarrow>
      (\<exists>t. gc_data ob = TableData t \<and>
        heap vm' a = Some (ob\<lparr>gc_data := TableData (drop_dead_pairs kept (gc_type ob) t)\<rparr>)))"
proof -
  note col = collect_result [OF assms(1-3)] and d = vm_ok_data [OF assms(1,5)]
  have kept: "kept_value (heap vm) {b. gc_live vm b} =
      (\<lambda>x. live_value {b. gc_live vm b} x \<and> \<not> threaded_value (heap vm) x)"
    by (simp add: kept_value_def fun_eq_iff)
  have "heap vm' a = Some (survivor vm a ob)" if "gc_type ob \<noteq> JANET_MEMORY_THREADED_ABSTRACT"
    using col assms(4,5) that by (simp add: collected_def collected_heap_def)
  then show ?thesis
    unfolding Let_def kept [symmetric] using d by (cases "gc_data ob")
      (auto simp: survivor_def drop_weak_def resolve_def live_set_def data_ok_def)
qed

text \<open>The pair with the dead string goes from the weak table, and the live threaded abstract value
  from the weak array.\<close>

theorem gc_weak_references_witness:
  "\<exists>vm'. janet_collect ex_vm = Some vm' \<and>
    heap vm' 4 = Some (gc_block JANET_MEMORY_TABLE_WEAKV (TableData
      \<lparr>tbl_count = 1, tbl_deleted = 1, tbl_data =
       [\<lparr>kv_key = JANET_KEYWORD 2, kv_value = JANET_STRING 3\<rparr>, tombstone], tbl_proto = None\<rparr>)) \<and>
    heap vm' 7 = Some (gc_block JANET_MEMORY_ARRAY_WEAK (ArrayData [JANET_NIL, JANET_STRING 3]))"
proof -
  obtain vm' where vm': "janet_collect ex_vm = Some vm'" using ex_collect by blast
  have h: "gc_live ex_vm 4" "heap ex_vm 4 = Some (gc_block JANET_MEMORY_TABLE_WEAKV (TableData ex_table))"
    and h7: "gc_live ex_vm 7" "heap ex_vm 7 = Some (gc_block JANET_MEMORY_ARRAY_WEAK
      (ArrayData [JANET_ABSTRACT 8, JANET_STRING 3]))" and s: "gc_suspend ex_vm = 0"
    by (simp_all add: ex_gc_live, simp_all add: ex_vm_def ex_heap_def)
  have "{b. gc_live ex_vm b} = {0, 1, 2, 3, 4, 7, 8}" by (auto simp: ex_gc_live)
  then have kept: "live_value {b. gc_live ex_vm b} (JANET_STRING 3)"
    "\<not> threaded_value (heap ex_vm) (JANET_STRING 3)" "threaded_value (heap ex_vm) (JANET_ABSTRACT 8)"
    "\<not> live_value {b. gc_live ex_vm b} (JANET_STRING 5)"
    by (simp_all add: live_value_def threaded_value_def ex_vm_def ex_heap_def has_type_def gc_block_def)
  show ?thesis
    using gc_weak_references [OF ex_vm_ok s vm' h] gc_weak_references [OF ex_vm_ok s vm' h7] kept vm'
    by (simp add: gc_block_def ex_table_def drop_dead_pairs_def dead_pair_def checks_keys_def checks_values_def)
qed

text \<open>a threaded abstract value in a live weak array is dropped from it although it is live
  and stays in the heap: marking it records it in the table of threaded abstract values and sets
  no flag on the block, and the flag is what the sweep of the weak heap looks at.\<close>

lemma gc_weak_threaded_dropped:
  assumes "vm_ok vm" "gc_suspend vm = 0" "janet_collect vm = Some vm'"
    and "gc_live vm a" "heap vm a = Some ob" "gc_type ob = JANET_MEMORY_ARRAY_WEAK"
    and "gc_data ob = ArrayData xs" "i < length xs" "xs ! i = JANET_ABSTRACT t"
    and "gc_live vm t" "has_type (heap vm) {JANET_MEMORY_THREADED_ABSTRACT} t"
  shows "\<exists>ys. heap vm' a = Some (ob\<lparr>gc_data := ArrayData ys\<rparr>) \<and> ys ! i = JANET_NIL \<and>
    heap vm' t = heap vm t"
proof -
  note col = collect_result [OF assms(1-3)]
  have a: "heap vm' a = Some (ob\<lparr>gc_data := ArrayData
      (map (\<lambda>x. if kept_value (heap vm) (live_set vm) x then x else JANET_NIL) xs)\<rparr>)"
    using col assms(4-7) by (simp add: collected_def collected_heap_def survivor_def drop_weak_def resolve_def)
  have dead: "\<not> kept_value (heap vm) (live_set vm) (JANET_ABSTRACT t)"
    using assms(11) by (simp add: kept_value_eq)
  from assms(11) obtain tob where tob: "heap vm t = Some tob" "gc_type tob = JANET_MEMORY_THREADED_ABSTRACT"
    by (rule has_type_Some) simp
  have "heap (own vm') t = Some tob"
    using own_live [OF assms(1) col _ tob(1)] assms(10) tob(2) by simp
  then have "heap vm' t = heap vm t" using tob(1) by (simp add: own_def restrict_map_def split: if_splits)
  then show ?thesis using a dead assms(8,9) by auto
qed



section \<open>Roots\<close>

lemma gc_idequals_refl [simp]: "janet_gc_idequals x x"
  by (cases x) (simp_all add: janet_gc_idequals_def)

lemma mset_swap_last:
  assumes "v < length rs"
  shows "mset rs = add_mset (rs ! v) (mset (butlast (rs[v := last rs])))"
proof (cases "v = length rs - 1")
  case True
  then have "butlast (rs[v := last rs]) = butlast rs" by (simp add: butlast_list_update)
  moreover have "rs \<noteq> []" using assms by auto
  then have "mset rs = add_mset (last rs) (mset (butlast rs))"
    by (metis append_butlast_last_id mset.simps(2) mset_append add.commute add_mset_add_single mset_single_iff)
  ultimately show ?thesis using True \<open>rs \<noteq> []\<close> by (simp add: last_conv_nth)
next
  case False
  then have v: "v < length (butlast rs)" using assms by simp
  have "rs \<noteq> []" using assms by auto
  then obtain ys y where rs: "rs = ys @ [y]" by (metis append_butlast_last_id)
  have "mset (ys[v := y]) = add_mset y (mset ys - {#ys ! v#})"
    using v rs by (simp add: mset_update)
  moreover have "mset ys = add_mset (ys ! v) (mset ys - {#ys ! v#})" using v rs by simp
  ultimately show ?thesis
    using v rs by (simp add: nth_append list_update_append butlast_append add_mset_commute)
qed

lemma gcunroot_loop_spec:
  "gcunroot_loop x v rs = (ret, rs') \<Longrightarrow>
   (ret \<longleftrightarrow> (\<exists>i\<ge>v. i < length rs \<and> janet_gc_idequals x (rs ! i))) \<and>
   (if ret then \<exists>r. janet_gc_idequals x r \<and> mset rs = add_mset r (mset rs') else rs' = rs)"
proof (induction x v rs arbitrary: ret rs' rule: gcunroot_loop.induct)
  case (1 root v rs)
  show ?case
  proof (cases "v < length rs \<and> \<not> janet_gc_idequals root (rs ! v)")
    case True
    with "1.prems" have "gcunroot_loop root (v + 1) rs = (ret, rs')"
      by (subst (asm) gcunroot_loop.simps) simp
    from "1.IH" [OF _ _ this] True
    have ih: "(ret \<longleftrightarrow> (\<exists>i\<ge>v + 1. i < length rs \<and> janet_gc_idequals root (rs ! i))) \<and>
      (if ret then \<exists>r. janet_gc_idequals root r \<and> mset rs = add_mset r (mset rs') else rs' = rs)" by simp
    have "(\<exists>i\<ge>v + 1. i < length rs \<and> janet_gc_idequals root (rs ! i)) \<longleftrightarrow>
      (\<exists>i\<ge>v. i < length rs \<and> janet_gc_idequals root (rs ! i))"
    proof
      assume "\<exists>i\<ge>v. i < length rs \<and> janet_gc_idequals root (rs ! i)"
      then obtain i where i: "v \<le> i" "i < length rs" "janet_gc_idequals root (rs ! i)" by blast
      with True have "v \<noteq> i" by auto
      with i show "\<exists>i\<ge>v + 1. i < length rs \<and> janet_gc_idequals root (rs ! i)"
        by (intro exI [of _ i]) simp
    next
      assume "\<exists>i\<ge>v + 1. i < length rs \<and> janet_gc_idequals root (rs ! i)"
      then show "\<exists>i\<ge>v. i < length rs \<and> janet_gc_idequals root (rs ! i)"
        by (meson add_leE)
    qed
    with ih show ?thesis by simp
  next
    case False
    with "1.prems" show ?thesis
      by (subst (asm) gcunroot_loop.simps) (auto dest: mset_swap_last split: if_splits)
  qed
qed

text \<open>\<open>janet_gcunroot\<close> tells whether the value is a root and takes exactly one entry for it off
  the roots; a value rooted \<open>n\<close> times has to be unrooted \<open>n\<close> times.\<close>

lemma gcunroot_removes_one:
  assumes "janet_gcunroot x vm = (ret, vm')"
  shows "(ret \<longleftrightarrow> (\<exists>r\<in>set (roots vm). janet_gc_idequals x r)) \<and>
    (if ret then \<exists>r. janet_gc_idequals x r \<and> mset (roots vm) = add_mset r (mset (roots vm')) \<and>
        vm' = vm\<lparr>roots := roots vm'\<rparr>
     else vm' = vm) \<and>
    fst (janet_gcunroot x (janet_gcroot x vm))"
proof -
  obtain rs where l: "gcunroot_loop x 0 (roots vm) = (ret, rs)" "vm' = vm\<lparr>roots := rs\<rparr>"
    using assms by (auto simp: janet_gcunroot_def split: prod.splits)
  obtain b ys where r: "gcunroot_loop x 0 (roots vm @ [x]) = (b, ys)" by (cases "gcunroot_loop x 0 (roots vm @ [x])")
  have "(roots vm @ [x]) ! length (roots vm) = x" by simp
  then have "\<exists>i\<ge>0. i < length (roots vm @ [x]) \<and> janet_gc_idequals x ((roots vm @ [x]) ! i)"
    by (intro exI [of _ "length (roots vm)"]) simp
  then have "b" using conjunct1 [OF gcunroot_loop_spec [OF r]] by blast
  then have "fst (janet_gcunroot x (janet_gcroot x vm))"
    using r by (simp add: janet_gcunroot_def janet_gcroot_def Let_def)
  moreover have iff: "(\<exists>i\<ge>0. i < length (roots vm) \<and> janet_gc_idequals x (roots vm ! i)) \<longleftrightarrow>
      (\<exists>r\<in>set (roots vm). janet_gc_idequals x r)" by (metis in_set_conv_nth le0)
  moreover note gcunroot_loop_spec [OF l(1), unfolded iff]
  moreover have "roots vm' = rs" "vm' = vm\<lparr>roots := roots vm'\<rparr>" "rs = roots vm \<Longrightarrow> vm' = vm"
    using l(2) by simp_all
  ultimately show ?thesis by (cases ret) (simp_all only: if_True if_False, blast+)
qed

lemma gcunroot_removes_one_example:
  "\<exists>vm'. janet_gcunroot (JANET_TABLE 4) ex_vm = (True, vm') \<and>
     mset (roots vm') = {#JANET_ARRAY 7, JANET_ABSTRACT 8#}"
proof -
  obtain ret vm' where u: "janet_gcunroot (JANET_TABLE 4) ex_vm = (ret, vm')" by (cases "janet_gcunroot (JANET_TABLE 4) ex_vm")
  have roots: "roots ex_vm = [JANET_TABLE 4, JANET_ARRAY 7, JANET_ABSTRACT 8]" by (simp add: ex_vm_def)
  note g = gcunroot_removes_one [OF u, unfolded roots]
  then have ret: "ret" by simp
  with g obtain r where r: "janet_gc_idequals (JANET_TABLE 4) r"
    "mset [JANET_TABLE 4, JANET_ARRAY 7, JANET_ABSTRACT 8] = add_mset r (mset (roots vm'))" by auto
  have "r \<in># mset [JANET_TABLE 4, JANET_ARRAY 7, JANET_ABSTRACT 8]" unfolding r(2) by simp
  with r(1) have "r = JANET_TABLE 4" by (auto simp: janet_gc_idequals_def)
  with r(2) show ?thesis using u ret by simp
qed

lemma gcunrootall_skip:
  "\<forall>r\<in>set (drop v rs). \<not> janet_gc_idequals x r \<Longrightarrow> v \<le> length rs \<Longrightarrow>
   gcunrootall_loop x v (rs @ [x, x]) ret = (True, rs @ [x])"
proof (induction "length rs - v" arbitrary: v)
  case 0
  then have "v = length rs" by simp
  moreover have "gcunrootall_loop x (Suc (length rs)) (rs @ [x]) True = (True, rs @ [x])"
    by (subst gcunrootall_loop.simps) simp
  ultimately show ?case
    by (subst gcunrootall_loop.simps) (simp add: nth_append list_update_append butlast_append)
next
  case (Suc n)
  then have v: "v < length rs" by simp
  then have "rs ! v \<in> set (drop v rs)" by (metis Cons_nth_drop_Suc list.set_intros(1))
  then have "\<not> janet_gc_idequals x ((rs @ [x, x]) ! v)" using Suc.prems v by (simp add: nth_append)
  moreover have "gcunrootall_loop x (Suc v) (rs @ [x, x]) ret = (True, rs @ [x])"
    using Suc.prems v by (intro Suc.hyps(1)) (use Suc.hyps(2) set_drop_subset_set_drop [of v "Suc v" rs] in auto)
  ultimately show ?case using v by (subst gcunrootall_loop.simps) simp
qed

text \<open>C28: \<open>janet_gcunrootall\<close> does not unroot all: after overwriting an entry with the last one it
  goes on with the next index, so of a value rooted twice in a row at the end of the array one
  entry stays, although the call reports success.\<close>

theorem gcunrootall_leaves_root:
  assumes "\<forall>r\<in>set rs. \<not> janet_gc_idequals x r"
  shows "janet_gcunrootall x (vm\<lparr>roots := rs @ [x, x]\<rparr>) = (True, vm\<lparr>roots := rs @ [x]\<rparr>)"
  using gcunrootall_skip [of 0 rs x False] assms by (simp add: janet_gcunrootall_def)

theorem gcunrootall_leaves_root_witness:
  "janet_gcunrootall (JANET_STRING 3) (ex_vm\<lparr>roots := [JANET_TABLE 4, JANET_STRING 3, JANET_STRING 3]\<rparr>) =
     (True, ex_vm\<lparr>roots := [JANET_TABLE 4, JANET_STRING 3]\<rparr>)"
  using gcunrootall_leaves_root [of "[JANET_TABLE 4]" "JANET_STRING 3" ex_vm]
  by (simp add: janet_gc_idequals_def)

section \<open>Function environments\<close>

text \<open>The value of a captured variable: on the stack of the fiber, or in the detached vector.\<close>

definition env_slot :: "heap \<Rightarrow> JanetFuncEnv \<Rightarrow> nat \<Rightarrow> Janet option" where
  "env_slot h env i = (case env_as env of
       AsValues xs \<Rightarrow> if i < length xs then Some (xs ! i) else None
     | AsFiber f \<Rightarrow> (case get_fiber h f of None \<Rightarrow> None
         | Some fiber \<Rightarrow> if nat (env_offset env) + i < length (fib_data fiber)
             then Some (fib_data fiber ! (nat (env_offset env) + i)) else None))"

text \<open>C27: When the collector detaches an environment from a finished fiber, the environment keeps
  its length and the value of every slot that the closure bitset of the function says a closure
  captures (all slots where there is no bitset); the other slots become nil.\<close>

theorem env_detach_keeps_captured:
  assumes "env_offset env > 0" "env_as env = AsFiber f" "get_fiber h f = Some fiber"
    and "is_finished (fib_status fiber)" "env_frame (fib_frames fiber) (nat (env_offset env)) = Some fr"
    and "fr_func fr = Some fn" "get_funcdef h fn = Some def"
    and "janet_env_maybe_detach h a env = Some env'" "i < env_length env"
  shows "env_offset env' = 0 \<and> env_length env' = env_length env \<and>
    env_slot h env' i =
      (if (case def_closure_bitset def of None \<Rightarrow> True | Some bs \<Rightarrow> bit (bs ! (i div 32)) (i mod 32))
       then env_slot h env i else Some JANET_NIL)"
proof -
  from assms obtain vals vmem where
    v: "slots (fib_data fiber) (nat (env_offset env)) (env_length env) = Some vals"
    and m: "clear_unneeded (def_closure_bitset def) vals = Some vmem"
    and env': "env' = env\<lparr>env_offset := 0, env_as := AsValues vmem\<rparr>"
    by (auto simp: janet_env_maybe_detach_def janet_env_valid_def janet_env_detach_def split: bind_splits)
  have len: "nat (env_offset env) + env_length env \<le> length (fib_data fiber)"
    and vals: "vals = take (env_length env) (drop (nat (env_offset env)) (fib_data fiber))"
    using v by (auto simp: slots_def split: if_splits)
  have nth: "vals ! i = fib_data fiber ! (nat (env_offset env) + i)" "length vals = env_length env"
    using len assms(9) by (simp_all add: vals)
  have old: "env_slot h env i = Some (vals ! i)"
    using len assms(2,3,9) by (simp add: env_slot_def nth)
  have vm: "length vmem = length vals \<and> vmem ! i =
      (if (case def_closure_bitset def of None \<Rightarrow> True | Some bs \<Rightarrow> bit (bs ! (i div 32)) (i mod 32))
       then vals ! i else JANET_NIL)"
    using m assms(9) nth(2) by (cases "def_closure_bitset def") (auto simp: clear_unneeded_def split: if_splits)
  then show ?thesis
    using nth(2) assms(9) by (simp add: env' env_slot_def [of _ "env\<lparr>env_offset := 0, env_as := AsValues vmem\<rparr>"] old)
qed

text \<open>A finished fiber with one frame of two slots, of which a closure captured the second.\<close>

definition ex_env_heap :: heap where
  "ex_env_heap = [0 \<mapsto> gc_block JANET_MEMORY_FIBER (FiberData (ex_fiber\<lparr>fib_status := JANET_STATUS_DEAD,
       fib_data := replicate 4 JANET_NIL @ [JANET_NUMBER 7, JANET_BOOLEAN True],
       fib_frames := [\<lparr>fr_index = 4, fr_func = Some 1, fr_env = Some 3\<rparr>]\<rparr>)),
     1 \<mapsto> gc_block JANET_MEMORY_FUNCTION (FunctionData \<lparr>fn_def = Some 2, fn_envs = []\<rparr>),
     2 \<mapsto> gc_block JANET_MEMORY_FUNCDEF (FuncDefData \<lparr>def_constants = [], def_defs = [], def_source = None,
       def_name = None, def_symbolmap = [], def_environments_length = 0, def_slotcount = 2,
       def_closure_bitset = Some [2]\<rparr>)]"

theorem env_detach_keeps_captured_witness:
  "\<exists>env'. janet_env_maybe_detach ex_env_heap 3 \<lparr>env_as = AsFiber 0, env_length = 2, env_offset = 4\<rparr> = Some env' \<and>
     env_slot ex_env_heap env' 0 = Some JANET_NIL \<and> env_slot ex_env_heap env' 1 = Some (JANET_BOOLEAN True)"
proof -
  let ?env = "\<lparr>env_as = AsFiber 0, env_length = 2, env_offset = 4\<rparr>"
  let ?fiber = "ex_fiber\<lparr>fib_status := JANET_STATUS_DEAD,
       fib_data := replicate 4 JANET_NIL @ [JANET_NUMBER 7, JANET_BOOLEAN True],
       fib_frames := [\<lparr>fr_index = 4, fr_func = Some 1, fr_env = Some 3\<rparr>]\<rparr>"
  let ?def = "\<lparr>def_constants = [], def_defs = [], def_source = None,
       def_name = None, def_symbolmap = [], def_environments_length = 0, def_slotcount = 2,
       def_closure_bitset = Some [2]\<rparr>"
  have f: "get_fiber ex_env_heap 0 = Some ?fiber" by (simp add: get_fiber_def ex_env_heap_def gc_block_def)
  have d: "get_funcdef ex_env_heap 1 = Some ?def" by (simp add: get_funcdef_def ex_env_heap_def gc_block_def)
  have fin: "is_finished (fib_status ?fiber)" by (simp add: is_finished_def)
  have b: "bit (2 :: u32) 1" "\<not> bit (2 :: u32) 0" by (simp_all add: bit_numeral_rec(1))
  obtain env' where e: "janet_env_maybe_detach ex_env_heap 3 ?env = Some env'"
    using f d fin
    by (simp add: janet_env_maybe_detach_def janet_env_valid_def janet_env_detach_def slots_def clear_unneeded_def)
  note t = env_detach_keeps_captured [OF _ _ f fin, of ?env, OF _ _ _ _ d e]
  have "env_slot ex_env_heap env' 0 = Some JANET_NIL" using t [of _ 0] b by simp
  moreover have "env_slot ex_env_heap env' 1 = Some (JANET_BOOLEAN True)"
    using t [of _ 1] b f by (simp add: env_slot_def [of _ ?env] nth_append)
  ultimately show ?thesis using e by blast
qed

section \<open>Suspension and release\<close>

text \<open>Between \<open>janet_gclock\<close> and the matching \<open>janet_gcunlock\<close> a collection does nothing, also
  when the locks nest, and unlocking restores the state before the lock.\<close>

lemma gc_lock_suspends:
  assumes "gc_suspend vm \<ge> 0" "janet_gclock vm = Some (handle, vm')"
  shows "janet_collect vm' = Some vm' \<and> gc_suspend vm' \<ge> 0 \<and> janet_gcunlock handle vm' = vm"
  using assms by (auto simp: janet_gclock_def janet_gcunlock_def janet_collect_def split: if_splits)

lemma clear_threaded_heap:
  "distinct (map fst ts) \<Longrightarrow> \<forall>a\<in>fst ` set ts. heap vm a \<noteq> None \<Longrightarrow>
   \<exists>vm'. clear_threaded ts vm = Some vm' \<and> (\<forall>a. a \<notin> fst ` set ts \<longrightarrow> heap vm' a = heap vm a) \<and>
     blocks vm' = blocks vm \<and> weak_blocks vm' = weak_blocks vm"
proof (induction ts arbitrary: vm)
  case (Cons t ts)
  obtain a v where t: "t = (a, v)" by (cases t)
  obtain ob where ob: "heap vm a = Some ob" using Cons.prems(2) by (auto simp: t)
  let ?vm1 = "vm\<lparr>threaded_refs := (threaded_refs vm)(a := threaded_refs vm a - 1)\<rparr>"
  let ?vm2 = "(case gc_data ob of AbstractData _ gc \<Rightarrow>
      if gc then ?vm1\<lparr>finalized := finalized vm @ [a]\<rparr> else ?vm1 | _ \<Rightarrow> ?vm1)"
  let ?vm3 = "if threaded_refs vm a = 1 then ?vm2\<lparr>heap := (heap ?vm2)(a := None)\<rparr> else ?vm1"
  have sel: "heap ?vm3 b = (if threaded_refs vm a = 1 \<and> b = a then None else heap vm b)"
    "blocks ?vm3 = blocks vm" "weak_blocks ?vm3 = weak_blocks vm" for b
    by (auto split: gc_data.split)
  have step: "clear_threaded (t # ts) vm = clear_threaded ts ?vm3"
    using ob by (cases "threaded_refs vm a = 1"; cases "gc_data ob") (simp_all add: t Let_def)
  have "a \<notin> fst ` set ts" "distinct (map fst ts)" using Cons.prems(1) by (auto simp: t)
  moreover have "\<forall>b\<in>fst ` set ts. heap ?vm3 b \<noteq> None"
    unfolding sel using Cons.prems(2) calculation(1) by auto
  ultimately obtain vm' where vm': "clear_threaded ts ?vm3 = Some vm'"
    "\<forall>b. b \<notin> fst ` set ts \<longrightarrow> heap vm' b = heap ?vm3 b" "blocks vm' = blocks vm" "weak_blocks vm' = weak_blocks vm"
    using Cons.IH [of ?vm3] unfolding sel by blast
  then show ?case unfolding step sel by (auto simp: t)
qed simp

lemma deinit_block_sel [simp]:
  "heap (janet_deinit_block a ob vm) = heap vm" "weak_blocks (janet_deinit_block a ob vm) = weak_blocks vm"
  by (simp_all add: janet_deinit_block_def split: JanetMemoryType.split gc_data.split)

lemma clear_blocks_heap:
  "distinct cs \<Longrightarrow> \<forall>a\<in>set cs. heap vm a \<noteq> None \<Longrightarrow>
   \<exists>vm'. clear_blocks cs vm = Some vm' \<and> heap vm' = (\<lambda>a. if a \<in> set cs then None else heap vm a) \<and>
     weak_blocks vm' = weak_blocks vm"
proof (induction cs arbitrary: vm)
  case (Cons c cs)
  then obtain ob where ob: "heap vm c = Some ob" by auto
  let ?vm1 = "(janet_deinit_block c ob vm)\<lparr>heap := (heap vm)(c := None)\<rparr>"
  have "\<forall>a\<in>set cs. heap ?vm1 a \<noteq> None" using Cons.prems by auto
  then obtain vm' where "clear_blocks cs ?vm1 = Some vm'"
    "heap vm' = (\<lambda>a. if a \<in> set cs then None else heap ?vm1 a)" "weak_blocks vm' = weak_blocks ?vm1"
    using Cons.IH [of ?vm1] Cons.prems(1) by auto
  then show ?case using ob by (auto simp: Let_def fun_eq_iff)
qed simp

text \<open>C29: \<open>janet_clear_memory\<close> frees every block of the main heap and none of the weak heap: weak
  arrays and tables are never released when the VM is shut down.\<close>

theorem clear_memory_keeps_weak:
  assumes "vm_ok vm"
  shows "\<exists>vm'. janet_clear_memory vm = Some vm' \<and> blocks vm' = [] \<and> scratch_mem vm' = [] \<and>
    (\<forall>a\<in>set (blocks vm). heap vm' a = None) \<and> weak_blocks vm' = weak_blocks vm \<and>
    (\<forall>a\<in>set (weak_blocks vm). heap vm' a = heap vm a \<and> heap vm' a \<noteq> None)"
proof -
  have b: "blocks_ok vm" using assms by (simp add: vm_ok_def)
  have block: "a \<notin> fst ` set (threaded_abstracts vm) \<and> heap vm a \<noteq> None"
    if "a \<in> set (blocks vm) \<union> set (weak_blocks vm)" for a
    using vm_ok_block [OF assms that] by (metis option.distinct(1))
  have thr: "\<forall>a\<in>fst ` set (threaded_abstracts vm). heap vm a \<noteq> None"
    using b by (auto simp: blocks_ok_def has_type_def split: option.splits)
  from clear_threaded_heap [OF _ thr] b obtain vm1 where 1: "clear_threaded (threaded_abstracts vm) vm = Some vm1"
    "\<forall>a. a \<notin> fst ` set (threaded_abstracts vm) \<longrightarrow> heap vm1 a = heap vm a"
    "blocks vm1 = blocks vm" "weak_blocks vm1 = weak_blocks vm" by (auto simp: blocks_ok_def)
  have "\<forall>a\<in>set (blocks vm). heap vm1 a \<noteq> None" using 1(2) block by (metis UnI1)
  from clear_blocks_heap [OF _ this] b obtain vm2 where 2: "clear_blocks (blocks vm) vm1 = Some vm2"
    "heap vm2 = (\<lambda>a. if a \<in> set (blocks vm) then None else heap vm1 a)" "weak_blocks vm2 = weak_blocks vm"
    by (auto simp: blocks_ok_def 1(4))
  have weak: "heap vm2 a = heap vm a \<and> heap vm2 a \<noteq> None" if "a \<in> set (weak_blocks vm)" for a
    using that block [of a] vm_ok_disjoint [OF assms] 1(2) by (auto simp: 2(2))
  let ?vm2 = "janet_free_all_scratch (vm2\<lparr>blocks := []\<rparr>)"
  have "janet_clear_memory vm = Some ?vm2"
    using 1(1,3) 2(1) by (simp add: janet_clear_memory_def)
  moreover have "blocks ?vm2 = [] \<and> scratch_mem ?vm2 = [] \<and> (\<forall>a\<in>set (blocks vm). heap ?vm2 a = None) \<and>
    weak_blocks ?vm2 = weak_blocks vm"
    using 2(3) by (simp add: 2(2) janet_free_all_scratch_def)
  moreover have "\<forall>a\<in>set (weak_blocks vm). heap ?vm2 a = heap vm a \<and> heap ?vm2 a \<noteq> None"
  proof -
    have same: "heap ?vm2 = heap vm2" by (simp add: janet_free_all_scratch_def)
    show ?thesis unfolding same using weak by blast
  qed
  ultimately show ?thesis by blast
qed

theorem clear_memory_keeps_weak_witness:
  "\<exists>vm'. janet_clear_memory ex_vm = Some vm' \<and> heap vm' 3 = None \<and> heap vm' 4 \<noteq> None \<and> weak_blocks vm' = [4, 7]"
proof -
  have "blocks ex_vm = [0, 1, 2, 3, 5, 6]" "weak_blocks ex_vm = [4, 7]" by (simp_all add: ex_vm_def)
  then show ?thesis using clear_memory_keeps_weak [OF ex_vm_ok] by auto
qed

end
