(* ===== verification/Janet_Session.thy ===== *)
theory Janet_Session
  imports Janet_GC_Properties
begin

text \<open>
  The collector's interface in use: allocation, roots, locks and collections in any order. A block
  that is allocated extends the heap (\<open>map_le\<close>), and well-formedness is kept by extensions.
\<close>

section \<open>Extending the heap\<close>

lemma map_leD: "h \<subseteq>\<^sub>m h' \<Longrightarrow> h a = Some ob \<Longrightarrow> h' a = Some ob"
  by (force simp: map_le_def dom_def)

lemma has_type_le: "h \<subseteq>\<^sub>m h' \<Longrightarrow> has_type h tys a \<Longrightarrow> has_type h' tys a"
  by (auto simp: has_type_def dest: map_leD split: option.splits)

lemma value_ok_le: "h \<subseteq>\<^sub>m h' \<Longrightarrow> value_ok h x \<Longrightarrow> value_ok h' x"
  by (cases x) (simp_all add: has_type_le)

lemma values_ok_le: "h \<subseteq>\<^sub>m h' \<Longrightarrow> values_ok h xs \<Longrightarrow> values_ok h' xs"
  by (auto simp: values_ok_def list_all_iff value_ok_le)

lemma ptr_ok_le: "h \<subseteq>\<^sub>m h' \<Longrightarrow> ptr_ok h tys p \<Longrightarrow> ptr_ok h' tys p"
  by (auto simp: ptr_ok_def has_type_le split: option.splits)

lemma list_all_type_le: "h \<subseteq>\<^sub>m h' \<Longrightarrow> list_all (has_type h tys) xs \<Longrightarrow> list_all (has_type h' tys) xs"
  by (auto simp: list_all_iff has_type_le)

lemma get_fiber_le: "h \<subseteq>\<^sub>m h' \<Longrightarrow> get_fiber h a = Some f \<Longrightarrow> get_fiber h' a = Some f"
  by (auto simp: get_fiber_def dest: map_leD split: option.splits gc_data.splits)

lemma get_funcdef_Some:
  "get_funcdef h a = Some def \<longleftrightarrow> (\<exists>ob fn d dob. h a = Some ob \<and> gc_data ob = FunctionData fn \<and>
     fn_def fn = Some d \<and> h d = Some dob \<and> gc_data dob = FuncDefData def)"
  by (auto simp: get_funcdef_def split: option.splits gc_data.splits)

lemma get_funcdef_le:
  assumes "h \<subseteq>\<^sub>m h'" "get_funcdef h a = Some def"
  shows "get_funcdef h' a = Some def"
  using assms(2) map_leD [OF assms(1)] unfolding get_funcdef_Some by blast

lemmas heap_le = has_type_le value_ok_le values_ok_le ptr_ok_le list_all_type_le

lemma env_valid_loop_le:
  "h \<subseteq>\<^sub>m h' \<Longrightarrow> env_valid_loop h a i n frs = Some b \<Longrightarrow> env_valid_loop h' a i n frs = Some b"
  by (induction frs) (auto simp: get_funcdef_le split: if_splits bind_splits)

lemma env_valid_le:
  "h \<subseteq>\<^sub>m h' \<Longrightarrow> janet_env_valid h a env = Some env' \<Longrightarrow> janet_env_valid h' a env = Some env'"
  by (auto simp: janet_env_valid_def get_fiber_le env_valid_loop_le
      split: if_splits env_as.splits bind_splits)

lemma env_detach_le:
  "h \<subseteq>\<^sub>m h' \<Longrightarrow> janet_env_detach h a env = Some env' \<Longrightarrow> janet_env_detach h' a env = Some env'"
  by (auto simp: janet_env_detach_def env_valid_le get_fiber_le get_funcdef_le
      split: env_as.splits bind_splits)

lemma env_maybe_detach_le:
  "h \<subseteq>\<^sub>m h' \<Longrightarrow> janet_env_maybe_detach h a env = Some env' \<Longrightarrow> janet_env_maybe_detach h' a env = Some env'"
  by (auto simp: janet_env_maybe_detach_def env_valid_le get_fiber_le env_detach_le
      split: if_splits env_as.splits bind_splits)

lemma env_ok_le: "h \<subseteq>\<^sub>m h' \<Longrightarrow> env_ok h a env \<Longrightarrow> env_ok h' a env"
  by (auto simp: env_ok_def env_maybe_detach_le env_resolved_def heap_le
      split: option.splits env_as.splits dest: env_maybe_detach_le)

lemma fiber_ok_le: "h \<subseteq>\<^sub>m h' \<Longrightarrow> fiber_ok h f \<Longrightarrow> fiber_ok h' f"
  by (auto simp: fiber_ok_def list_all_iff heap_le split: option.splits)

lemma function_ok_le:
  assumes "h \<subseteq>\<^sub>m h'" "function_ok h a fn"
  shows "function_ok h' a fn"
proof (cases "fn_def fn")
  case None
  then show ?thesis by (simp add: function_ok_def)
next
  case (Some d)
  then obtain def where "get_funcdef h a = Some def" using assms(2)
    by (auto simp: function_ok_def split: option.splits)
  with get_funcdef_le [OF assms(1)] show ?thesis
    using assms Some by (auto simp: function_ok_def function_envs_def heap_le)
qed

lemma funcdef_ok_le: "h \<subseteq>\<^sub>m h' \<Longrightarrow> funcdef_ok h d \<Longrightarrow> funcdef_ok h' d"
  by (auto simp: funcdef_ok_def heap_le)

lemma data_ok_le: "h \<subseteq>\<^sub>m h' \<Longrightarrow> data_ok h a ty d \<Longrightarrow> data_ok h' a ty d"
  by (auto simp: data_ok_def heap_le env_ok_le fiber_ok_le function_ok_le funcdef_ok_le
      split: gc_data.splits option.splits)

section \<open>Steps\<close>

text \<open>
  The calls of a client of the collector. A new block contains valid references when the client has
  filled it in; a value that is rooted is valid. After a collection the VM has the blocks on its
  lists (\<open>own\<close>).
\<close>

inductive vm_step :: "JanetVM \<Rightarrow> JanetVM \<Rightarrow> bool" where
  alloc: "janet_gcalloc a ty sz d vm = Some vm' \<Longrightarrow> ty \<noteq> JANET_MEMORY_THREADED_ABSTRACT \<Longrightarrow>
    data_ok (heap vm') a ty d \<Longrightarrow> vm_step vm vm'"
| gcroot: "value_ok (heap vm) x \<Longrightarrow> vm_step vm (janet_gcroot x vm)"
| gcunroot: "janet_gcunroot x vm = (r, vm') \<Longrightarrow> vm_step vm vm'"
| gclock: "janet_gclock vm = Some (handle, vm') \<Longrightarrow> vm_step vm vm'"
| gcunlock: "vm_step vm (janet_gcunlock handle vm)"
| pressure: "vm_step vm (janet_gcpressure n vm)"
| collect: "janet_collect vm = Some vm' \<Longrightarrow> vm_step vm (own vm')"

section \<open>Every step keeps the invariant\<close>

lemma blocks_own: "vm_ok vm \<Longrightarrow> own vm = vm"
proof -
  assume "vm_ok vm"
  then have "dom (heap vm) = own_addrs vm" by (simp add: vm_ok_def blocks_ok_def own_addrs_def)
  then have "heap vm x = None" if "x \<notin> own_addrs vm" for x using that by blast
  then have "heap vm |` own_addrs vm = heap vm" by (auto simp: restrict_map_def fun_eq_iff)
  then show ?thesis by (simp add: own_def)
qed

lemma alloc_ok:
  assumes ok: "vm_ok vm" and al: "janet_gcalloc a ty sz d vm = Some vm'"
    and ty: "ty \<noteq> JANET_MEMORY_THREADED_ABSTRACT" and d: "data_ok (heap vm') a ty d"
  shows "vm_ok vm' \<and> heap vm \<subseteq>\<^sub>m heap vm'"
proof -
  let ?ob = "\<lparr>gc_type = ty, gc_reachable = False, gc_disabled = False, gc_data = d\<rparr>"
  from al have fresh: "heap vm a = None" and h': "heap vm' = (heap vm)(a \<mapsto> ?ob)"
    by (auto simp: janet_gcalloc_def Let_def split: if_splits)
  have le: "heap vm \<subseteq>\<^sub>m heap vm'" using fresh by (auto simp: h' map_le_def)
  have "ob_ok (heap vm') b ob \<and> \<not> gc_reachable ob" if "heap vm' b = Some ob" for b ob
  proof (cases "b = a")
    case True
    then have "ob = ?ob" using that by (simp add: h')
    with True d show ?thesis by (simp add: ob_ok_def)
  next
    case False
    then have "heap vm b = Some ob" using that by (simp add: h')
    then show ?thesis
      using heap_ok_data [of "heap vm" b ob] unmarkedD [of "heap vm" b ob] ok data_ok_le [OF le]
      by (simp add: vm_ok_def ob_ok_def)
  qed
  then have "heap_ok (heap vm')" "unmarked (heap vm')"
    by (auto simp: heap_ok_def unmarked_def split: option.splits)
  moreover have "roots_ok vm'"
    using ok al le by (auto simp: vm_ok_def roots_ok_def janet_gcalloc_def Let_def spawn_tasks_def
        task_ok_def timeout_ok_def list_all_iff heap_le split: if_splits)
  moreover have "blocks_ok vm'"
  proof -
    have b: "blocks_ok vm" using ok by (simp add: vm_ok_def)
    have na: "a \<notin> set (blocks vm) \<union> set (weak_blocks vm) \<union> fst ` set (threaded_abstracts vm)"
      using b fresh by (auto simp: blocks_ok_def domIff)
    have old: "has_type (heap vm') tys c = has_type (heap vm) tys c" if "c \<noteq> a" for tys c
      using that by (simp add: h' has_type_def)
    have new: "has_type (heap vm') tys a \<longleftrightarrow> ty \<in> tys" for tys by (simp add: h' has_type_def)
    have same: "\<forall>c\<in>S. has_type (heap vm) tys c \<longleftrightarrow> has_type (heap vm') tys c" if "a \<notin> S" for S tys
      using that by (metis old)
    have t: "threaded_abstracts vm' = threaded_abstracts vm" "block_count vm' = block_count vm + 1"
      using al by (auto simp: janet_gcalloc_def Let_def split: if_splits)
    have dom: "dom (heap vm') = insert a (dom (heap vm))" by (simp add: h')
    show ?thesis
    proof (cases "is_weak_type ty")
      case True
      then have l: "blocks vm' = blocks vm" "weak_blocks vm' = a # weak_blocks vm"
        using al by (auto simp: janet_gcalloc_def Let_def split: if_splits)
      show ?thesis using b na same [of "set (blocks vm)"] same [of "set (weak_blocks vm)"]
          same [of "fst ` set (threaded_abstracts vm)"] new True unfolding blocks_ok_def t l dom
        by simp
    next
      case False
      then have l: "blocks vm' = a # blocks vm" "weak_blocks vm' = weak_blocks vm"
        using al by (auto simp: janet_gcalloc_def Let_def split: if_splits)
      show ?thesis using b na same [of "set (blocks vm)"] same [of "set (weak_blocks vm)"]
          same [of "fst ` set (threaded_abstracts vm)"] new False ty unfolding blocks_ok_def t l dom
        by simp
    qed
  qed
  ultimately show ?thesis using le by (simp add: vm_ok_def)
qed

lemma heap_root_change:
  assumes "vm_ok vm" "heap vm' = heap vm" "blocks vm' = blocks vm" "weak_blocks vm' = weak_blocks vm"
    "threaded_abstracts vm' = threaded_abstracts vm" "block_count vm' = block_count vm"
    "spawn_tasks vm' = spawn_tasks vm" "tq vm' = tq vm" "root_fiber vm' = root_fiber vm"
    "top_dyns vm' = top_dyns vm" "values_ok (heap vm) (roots vm')"
  shows "vm_ok vm'"
  using assms by (simp add: vm_ok_def blocks_ok_def roots_ok_def)

lemma gcunroot_roots:
  assumes "janet_gcunroot x vm = (r, vm')"
  obtains rs where "set rs \<subseteq> set (roots vm)" "vm' = vm\<lparr>roots := rs\<rparr>"
proof -
  obtain rs where l: "gcunroot_loop x 0 (roots vm) = (r, rs)" "vm' = vm\<lparr>roots := rs\<rparr>"
    using assms by (auto simp: janet_gcunroot_def split: prod.splits)
  have "gcunroot_loop x v rs' = (r, rs) \<Longrightarrow> set rs \<subseteq> set rs'" for v rs'
  proof (induction x v rs' rule: gcunroot_loop.induct)
    case (1 root v rs')
    have "set (butlast (rs'[v := last rs'])) \<subseteq> set rs'" if "v < length rs'"
      using that set_update_subset_insert [of rs' v "last rs'"]
      by (cases "rs' = []") (auto dest!: in_set_butlastD)
    with 1 show ?case by (subst (asm) gcunroot_loop.simps) (auto split: if_splits)
  qed
  with l that show ?thesis by blast
qed

lemma collect_step:
  assumes ok: "vm_ok vm" and c: "janet_collect vm = Some vm'"
  shows "vm_ok (own vm') \<and> (\<forall>a. gc_live vm a \<longrightarrow> heap vm a \<noteq> None \<longrightarrow> heap (own vm') a \<noteq> None)"
proof (cases "gc_suspend vm = 0")
  case True
  note col = collect_result [OF ok True c]
  show ?thesis using collect_ok [OF ok col] own_live [OF ok col] by auto
next
  case False
  then have "vm' = vm" using c by (simp add: janet_collect_def)
  then show ?thesis using blocks_own [OF ok] ok by simp
qed

lemma vm_step_ok:
  assumes "vm_step vm vm'" "vm_ok vm"
  shows "vm_ok vm' \<and> (\<forall>a. gc_live vm a \<longrightarrow> heap vm a \<noteq> None \<longrightarrow> heap vm' a \<noteq> None)"
  using assms
proof induction
  case (alloc a ty sz d vm vm')
  from alloc_ok [OF alloc(4,1-3)] show ?case by (auto dest: map_leD)
next
  case (gcroot vm x)
  have "vm_ok (janet_gcroot x vm)"
    using gcroot by (intro heap_root_change [OF gcroot(2)])
      (auto simp: janet_gcroot_def Let_def spawn_tasks_def values_ok_def vm_ok_def roots_ok_def)
  then show ?case by (simp add: janet_gcroot_def Let_def)
next
  case (gcunroot x vm r vm')
  from gcunroot_roots [OF gcunroot(1)] obtain rs
    where u: "set rs \<subseteq> set (roots vm)" "vm' = vm\<lparr>roots := rs\<rparr>" .
  have "values_ok (heap vm) rs"
    using u(1) gcunroot(2) by (auto simp: values_ok_def vm_ok_def roots_ok_def list_all_iff)
  then have "vm_ok vm'" unfolding u(2)
    by (intro heap_root_change [OF gcunroot(2)]) (simp_all add: spawn_tasks_def)
  then show ?case by (simp add: u(2))
next
  case (gclock vm handle vm')
  then have "vm_ok vm'"
    by (intro heap_root_change [OF gclock(2)])
      (auto simp: janet_gclock_def spawn_tasks_def vm_ok_def roots_ok_def split: if_splits)
  then show ?case using gclock(1) by (auto simp: janet_gclock_def split: if_splits)
next
  case (gcunlock vm handle)
  have "vm_ok (janet_gcunlock handle vm)"
    by (intro heap_root_change [OF gcunlock])
      (use gcunlock in \<open>auto simp: janet_gcunlock_def spawn_tasks_def vm_ok_def roots_ok_def\<close>)
  then show ?case by (simp add: janet_gcunlock_def)
next
  case (pressure vm n)
  have "vm_ok (janet_gcpressure n vm)"
    by (intro heap_root_change [OF pressure])
      (use pressure in \<open>auto simp: janet_gcpressure_def spawn_tasks_def vm_ok_def roots_ok_def\<close>)
  then show ?case by (simp add: janet_gcpressure_def)
next
  case (collect vm vm')
  then show ?case using collect_step by blast
qed

interpretation vm: kept_by_steps vm_step vm_ok
  by unfold_locales (simp add: vm_step_ok)

lemma collect_returns: "vm_ok vm \<Longrightarrow> \<exists>vm'. janet_collect vm = Some vm'"
  using collect_collected [of vm] by (cases "gc_suspend vm = 0") (auto simp: janet_collect_def)

section \<open>Sessions\<close>

text \<open>C22: Any session of allocations, roots, unroots, locks and collections on a well-formed VM keeps it
  well formed, so that no pointer dangles; a collection can be started at every moment and returns;
  and no step takes away a block that is live when it starts.\<close>

theorem gc_session:
  assumes "vm_ok vm" "vm_step\<^sup>*\<^sup>* vm vm1" "vm_step vm1 vm2"
  shows "vm_ok vm2 \<and> (\<exists>vm3. janet_collect vm2 = Some vm3) \<and>
    (\<forall>a. gc_live vm1 a \<longrightarrow> heap vm1 a \<noteq> None \<longrightarrow> heap vm2 a \<noteq> None)"
  using vm_step_ok [OF assms(3) vm.steps_good [OF assms(2,1)]] collect_returns by blast

text \<open>A string that nobody refers to is rooted and survives the next collection.\<close>

theorem gc_session_witness:
  "\<exists>vm2. vm_step\<^sup>*\<^sup>* ex_vm vm2 \<and> vm_ok vm2 \<and> heap vm2 5 \<noteq> None \<and> janet_collect vm2 \<noteq> None"
proof -
  let ?vm1 = "janet_gcroot (JANET_STRING 5) ex_vm"
  have root: "vm_step ex_vm ?vm1"
    by (rule vm_step.gcroot) (simp add: ex_vm_def ex_heap_def has_type_def gc_block_def)
  obtain vm' where c: "janet_collect ?vm1 = Some vm'"
    using gc_session [OF ex_vm_ok _ root] by blast
  have step: "vm_step ?vm1 (own vm')" by (rule vm_step.collect [OF c])
  have "gc_live ?vm1 5" by (rule gc_live_root) (simp add: gc_roots_def janet_gcroot_def Let_def)
  moreover have "heap ?vm1 5 \<noteq> None" by (simp add: janet_gcroot_def Let_def ex_vm_def ex_heap_def)
  moreover have "vm_step\<^sup>*\<^sup>* ex_vm (own vm')" using root step by auto
  ultimately show ?thesis using gc_session [OF ex_vm_ok _ step] root by blast
qed

end
