(* ===== verification/Janet_Scratch.thy ===== *)
theory Janet_Scratch
  imports Janet_GC_Properties
begin

text \<open>
  The scratch memory of the collector (\<^verbatim>\<open>vendor/evil-janet/csrc/janet.c\<close>, section \<^verbatim>\<open>gc.c\<close>): blocks that C code
  may free itself and that the next collection frees otherwise. The VM keeps pointers to them in the
  growing array \<open>scratch_mem\<close>. \<open>None\<close> as a result is undefined behaviour; the calls that end the
  process with a message are values of \<open>janet_exit\<close>. A finalizer is a number, and its call an entry of
  the log \<open>s_calls\<close>; what a finalizer does is code outside of the collector.
\<close>

section \<open>State\<close>

record JanetScratch =
  finalize :: "nat option"
  s_mem :: "u8 cells"

record scratch_vm =
  s_heap :: "addr \<rightharpoonup> JanetScratch"
  s_array :: "addr cells"
  scratch_cap :: nat
  scratch_len :: nat
  s_calls :: "(nat \<times> addr) list"

datatype janet_exit = Out_of_memory | Invalid_srealloc | Invalid_sfree

text \<open>The contents of a block follow its header of one pointer. Sizes are of type \<open>size_t\<close>, whose sums
  and products wrap around.\<close>

definition SIZE_MAX :: nat where "SIZE_MAX = 18446744073709551615"

definition sizeof_JanetScratch :: nat where "sizeof_JanetScratch = 8"

definition size_t :: "nat \<Rightarrow> nat" where "size_t n = n mod (SIZE_MAX + 1)"

definition janet_mem2scratch :: "addr \<Rightarrow> addr" where
  "janet_mem2scratch p = p - 8"

definition scratch_init :: scratch_vm where
  "scratch_init = \<lparr>s_heap = Map.empty, s_array = [], scratch_cap = 0, scratch_len = 0, s_calls = []\<rparr>"

section \<open>Releasing\<close>

definition finalizer_calls :: "addr \<Rightarrow> JanetScratch \<Rightarrow> (nat \<times> addr) list" where
  "finalizer_calls s b = finalizer_call s (finalize b)"

definition free_one_scratch :: "addr \<Rightarrow> scratch_vm \<Rightarrow> scratch_vm option" where
  "free_one_scratch s vm = (case s_heap vm s of
     None \<Rightarrow> None
   | Some b \<Rightarrow> Some (vm\<lparr>s_calls := s_calls vm @ finalizer_calls s b, s_heap := (s_heap vm)(s := None)\<rparr>))"

fun free_scratch_loop :: "nat \<Rightarrow> nat \<Rightarrow> scratch_vm \<Rightarrow> scratch_vm option" where
  "free_scratch_loop i 0 vm = Some vm"
| "free_scratch_loop i (Suc n) vm =
     do { s \<leftarrow> block_read (s_array vm) i; vm \<leftarrow> free_one_scratch s vm; free_scratch_loop (i + 1) n vm }"

definition free_all_scratch :: "scratch_vm \<Rightarrow> scratch_vm option" where
  "free_all_scratch vm =
     map_option (\<lambda>vm. vm\<lparr>scratch_len := 0\<rparr>) (free_scratch_loop 0 (scratch_len vm) vm)"

section \<open>The interface\<close>

text \<open>The results of \<open>malloc\<close> and \<open>realloc\<close> are arguments: \<open>None\<close> is the null pointer, and a pointer that is
  returned must not be in use. \<open>avail\<close> says whether the array of pointers can grow.\<close>

definition scratch_push :: "addr \<Rightarrow> scratch_vm \<Rightarrow> (janet_exit + addr \<times> scratch_vm) option" where
  "scratch_push s vm = map_option
     (\<lambda>cs. Inr (scratch2mem s, vm\<lparr>s_array := cs, scratch_len := scratch_len vm + 1\<rparr>))
     (block_write (s_array vm) (scratch_len vm) s)"

text \<open>The size that \<open>malloc\<close> is asked for wraps around; in a block without room for the header the
  write of the header is out of bounds. Growing doubles the array, whose elements have the size of
  a pointer, with the same arithmetic.\<close>

definition scratch_grow :: "scratch_vm \<Rightarrow> scratch_vm" where
  "scratch_grow vm = (let newcap = size_t (2 * scratch_cap vm + 2) in
     vm\<lparr>scratch_cap := newcap,
        s_array := block_realloc (s_array vm) (size_t (newcap * sizeof_JanetScratch) div 8)\<rparr>)"

definition janet_smalloc ::
    "addr option \<Rightarrow> bool \<Rightarrow> nat \<Rightarrow> scratch_vm \<Rightarrow> (janet_exit + addr \<times> scratch_vm) option" where
  "janet_smalloc new avail sz vm = (case new of
     None \<Rightarrow> Some (Inl Out_of_memory)
   | Some s \<Rightarrow> let bytes = size_t (sizeof_JanetScratch + sz) in
       if s_heap vm s \<noteq> None \<or> bytes < sizeof_JanetScratch then None else
       let vm = vm\<lparr>s_heap := (s_heap vm)(s \<mapsto>
                     \<lparr>finalize = None, s_mem = block_alloc (bytes - sizeof_JanetScratch)\<rparr>)\<rparr> in
       if scratch_len vm = scratch_cap vm then
         if avail then scratch_push s (scratch_grow vm) else Some (Inl Out_of_memory)
       else scratch_push s vm)"

definition janet_scalloc ::
    "addr option \<Rightarrow> bool \<Rightarrow> nat \<Rightarrow> nat \<Rightarrow> scratch_vm \<Rightarrow> (janet_exit + addr \<times> scratch_vm) option" where
  "janet_scalloc new avail nmemb sz vm =
     (if nmemb \<noteq> 0 \<and> SIZE_MAX div nmemb < sz then Some (Inl Out_of_memory) else
      let n = size_t (nmemb * sz) in
      case janet_smalloc new avail n vm of
        Some (Inr (p, vm)) \<Rightarrow>
          (case s_heap vm (janet_mem2scratch p) of
             None \<Rightarrow> None
           | Some b \<Rightarrow> map_option
               (\<lambda>cs. Inr (p, vm\<lparr>s_heap := (s_heap vm)(janet_mem2scratch p \<mapsto> b\<lparr>s_mem := cs\<rparr>)\<rparr>))
               (block_copy_in (s_mem b) 0 (replicate n (Some 0))))
      | r \<Rightarrow> r)"

text \<open>The search for a block, from the last pointer to the first. A block reallocated to a size that
  wraps around has no contents to point to.\<close>

fun scratch_index :: "addr cells \<Rightarrow> addr \<Rightarrow> nat \<Rightarrow> nat option option" where
  "scratch_index cs s 0 = Some None"
| "scratch_index cs s (Suc i) =
     do { t \<leftarrow> block_read cs i; if t = s then Some (Some i) else scratch_index cs s i }"

definition janet_srealloc ::
    "addr option \<Rightarrow> bool \<Rightarrow> addr option \<Rightarrow> nat \<Rightarrow> scratch_vm \<Rightarrow> (janet_exit + addr \<times> scratch_vm) option" where
  "janet_srealloc new avail mem sz vm = (case mem of
     None \<Rightarrow> janet_smalloc new avail sz vm
   | Some p \<Rightarrow> let s = janet_mem2scratch p in
       do { r \<leftarrow> scratch_index (s_array vm) s (scratch_len vm);
            case r of
              None \<Rightarrow> Some (Inl Invalid_srealloc)
            | Some i \<Rightarrow> (case new of
                None \<Rightarrow> Some (Inl Out_of_memory)
              | Some t \<Rightarrow> do { b \<leftarrow> s_heap vm s;
                  let h = (s_heap vm)(s := None); bytes = size_t (sz + sizeof_JanetScratch) in
                  if h t \<noteq> None \<or> bytes < sizeof_JanetScratch then None else do {
                    cs \<leftarrow> block_write (s_array vm) i t;
                    Some (Inr (scratch2mem t, vm\<lparr>s_array := cs,
                      s_heap := h(t \<mapsto> b\<lparr>s_mem :=
                        block_realloc (s_mem b) (bytes - sizeof_JanetScratch)\<rparr>)\<rparr>)) } }) })"

definition janet_sfinalizer :: "addr \<Rightarrow> nat option \<Rightarrow> scratch_vm \<Rightarrow> scratch_vm option" where
  "janet_sfinalizer p f vm = map_option
     (\<lambda>b. vm\<lparr>s_heap := (s_heap vm)(janet_mem2scratch p \<mapsto> b\<lparr>finalize := f\<rparr>)\<rparr>)
     (s_heap vm (janet_mem2scratch p))"

definition janet_sfree :: "addr option \<Rightarrow> scratch_vm \<Rightarrow> (janet_exit + scratch_vm) option" where
  "janet_sfree mem vm = (case mem of
     None \<Rightarrow> Some (Inr vm)
   | Some p \<Rightarrow> let s = janet_mem2scratch p in
       do { r \<leftarrow> scratch_index (s_array vm) s (scratch_len vm);
            case r of
              None \<Rightarrow> Some (Inl Invalid_sfree)
            | Some i \<Rightarrow> do {
                t \<leftarrow> block_read (s_array vm) (scratch_len vm - 1);
                cs \<leftarrow> block_write (s_array vm) i t;
                vm \<leftarrow> free_one_scratch s (vm\<lparr>s_array := cs, scratch_len := scratch_len vm - 1\<rparr>);
                Some (Inr vm) } })"

section \<open>The blocks in use\<close>

text \<open>The array holds the pointers to all blocks, each of them once.\<close>

definition scratch_rep :: "scratch_vm \<Rightarrow> addr list \<Rightarrow> bool" where
  "scratch_rep vm ss \<longleftrightarrow> length (s_array vm) = scratch_cap vm \<and> scratch_len vm = length ss \<and>
     length ss \<le> scratch_cap vm \<and> take (length ss) (s_array vm) = map Some ss \<and>
     distinct ss \<and> set ss = dom (s_heap vm)"

lemma scratch_rep_init: "scratch_rep scratch_init []"
  by (simp add: scratch_rep_def scratch_init_def)

lemma scratch_rep_read: "scratch_rep vm ss \<Longrightarrow> i < length ss \<Longrightarrow> block_read (s_array vm) i = Some (ss ! i)"
  by (auto simp: scratch_rep_def intro: block_read_prefix)

lemma scratch_rep_live: "scratch_rep vm ss \<Longrightarrow> s_heap vm s = None \<longleftrightarrow> s \<notin> set ss"
  by (auto simp: scratch_rep_def domIff)

lemma insert_live [simp]: "h s = Some b \<Longrightarrow> insert s (dom h) = dom h"
  by (simp add: insert_absorb domI)

lemma mem2scratch [simp]: "janet_mem2scratch (scratch2mem s) = s"
  by (simp add: janet_mem2scratch_def scratch2mem_def)

lemma scratch_index_rep:
  assumes "scratch_rep vm ss" and "n \<le> length ss"
  shows "\<exists>r. scratch_index (s_array vm) s n = Some r \<and>
    (case r of None \<Rightarrow> s \<notin> set (take n ss) | Some i \<Rightarrow> i < n \<and> ss ! i = s)"
  using assms(2)
proof (induction n)
  case (Suc n)
  then show ?case
    using scratch_rep_read [OF assms(1), of n]
    by (auto simp: take_Suc_conv_app_nth less_Suc_eq split: option.splits)
qed simp

text \<open>The search finds the index of a live block, and no other.\<close>

lemma scratch_find:
  assumes "scratch_rep vm ss"
  shows "s \<notin> set ss \<Longrightarrow> scratch_index (s_array vm) s (scratch_len vm) = Some None"
    and "s \<in> set ss \<Longrightarrow> \<exists>i<length ss. ss ! i = s \<and> scratch_index (s_array vm) s (scratch_len vm) = Some (Some i)"
proof -
  have len: "scratch_len vm = length ss" using assms by (simp add: scratch_rep_def)
  from scratch_index_rep [OF assms order_refl, of s]
  obtain r where r: "scratch_index (s_array vm) s (scratch_len vm) = Some r"
    "case r of None \<Rightarrow> s \<notin> set ss | Some i \<Rightarrow> i < length ss \<and> ss ! i = s"
    unfolding len take_all [OF order_refl] by blast
  then show "s \<notin> set ss \<Longrightarrow> scratch_index (s_array vm) s (scratch_len vm) = Some None"
    by (auto split: option.splits)
  from r show "s \<in> set ss \<Longrightarrow>
      \<exists>i<length ss. ss ! i = s \<and> scratch_index (s_array vm) s (scratch_len vm) = Some (Some i)"
    by (auto split: option.splits)
qed

section \<open>The operations\<close>

text \<open>The sizes that do not wrap around, and the arrays that can be doubled.\<close>

definition scratch_fits :: "nat \<Rightarrow> bool" where
  "scratch_fits n \<longleftrightarrow> n + sizeof_JanetScratch \<le> SIZE_MAX"

definition scratch_room :: "scratch_vm \<Rightarrow> bool" where
  "scratch_room vm \<longleftrightarrow> scratch_len vm < scratch_cap vm \<or> (2 * scratch_cap vm + 2) * 8 \<le> SIZE_MAX"

lemma size_t_id [simp]: "n \<le> SIZE_MAX \<Longrightarrow> size_t n = n"
  by (simp add: size_t_def)

lemma scratch_bytes: "scratch_fits n \<Longrightarrow> size_t (n + 8) = n + 8 \<and> size_t (8 + n) = 8 + n"
  by (simp add: scratch_fits_def sizeof_JanetScratch_def add.commute)

lemma size_t_small: "n \<le> SIZE_MAX \<Longrightarrow> size_t (8 + n) < 8 \<longleftrightarrow> \<not> scratch_fits n"
  by (auto simp: size_t_def scratch_fits_def sizeof_JanetScratch_def SIZE_MAX_def mod_if)

text \<open>Where the doubled size wraps around, the new array has no place for the new pointer.\<close>

lemma doubled_mod:
  fixes m :: nat
  assumes "cap < (2 * cap + 2) mod m" and "0 < m"
  shows "2 * cap + 2 < m"
proof (rule ccontr)
  assume n: "\<not> 2 * cap + 2 < m"
  let ?k = "(2 * cap + 2) div m"
  have "1 \<le> ?k" using n assms(2) by (simp add: div_greater_zero_iff Suc_le_eq)
  then have "m \<le> m * ?k" by simp
  moreover have "m * ?k + (2 * cap + 2) mod m = 2 * cap + 2" by simp
  moreover have "(2 * cap + 2) mod m < m" using assms(2) by simp
  ultimately show False using assms(1) by linarith
qed

lemma eight_mod: "(x mod (8 * m) * 8) mod (8 * m) div 8 = x mod (m :: nat)"
  by (simp add: mult.commute [of _ 8] mod_mod_cancel)

lemma grow_wraps:
  assumes "cap < size_t (size_t (2 * cap + 2) * 8) div 8"
  shows "(2 * cap + 2) * 8 \<le> SIZE_MAX"
proof -
  let ?m = "2305843009213693952 :: nat"
  have m: "SIZE_MAX + 1 = 8 * ?m" by (simp add: SIZE_MAX_def)
  have "size_t (size_t x * 8) div 8 = x mod ?m" for x
    unfolding size_t_def m by (rule eight_mod)
  with assms have "2 * cap + 2 < ?m" by (intro doubled_mod) simp_all
  then show ?thesis by (simp add: SIZE_MAX_def)
qed

lemma scratch_push_rep:
  assumes "length (s_array vm) = scratch_cap vm" "scratch_len vm = length ss" "length ss < scratch_cap vm"
    "take (length ss) (s_array vm) = map Some ss" "distinct ss" "s \<notin> set ss" "insert s (set ss) = dom (s_heap vm)"
  shows "\<exists>vm'. scratch_push s vm = Some (Inr (scratch2mem s, vm')) \<and> scratch_rep vm' (ss @ [s]) \<and>
    s_heap vm' = s_heap vm \<and> s_calls vm' = s_calls vm"
  using assms
  by (auto simp: scratch_push_def scratch_rep_def block_write_Some take_list_update_snoc)

lemma scratch_grow_rep:
  assumes "scratch_len vm = scratch_cap vm" and "scratch_room vm"
  shows "scratch_grow vm = vm\<lparr>scratch_cap := 2 * scratch_cap vm + 2,
      s_array := block_realloc (s_array vm) (2 * scratch_cap vm + 2)\<rparr>"
proof -
  have "(2 * scratch_cap vm + 2) * 8 \<le> SIZE_MAX" using assms by (simp add: scratch_room_def)
  then have "2 * scratch_cap vm + 2 \<le> SIZE_MAX" "(2 * scratch_cap vm + 2) * 8 \<le> SIZE_MAX" by simp_all
  then show ?thesis by (simp only: scratch_grow_def Let_def sizeof_JanetScratch_def size_t_id)
      simp
qed

lemma smalloc_rep:
  assumes "scratch_rep vm ss" and "s \<notin> set ss" and "scratch_fits n" and "scratch_room vm"
  shows "\<exists>vm'. janet_smalloc (Some s) True n vm = Some (Inr (scratch2mem s, vm')) \<and> scratch_rep vm' (ss @ [s]) \<and>
    s_heap vm' = (s_heap vm)(s \<mapsto> \<lparr>finalize = None, s_mem = block_alloc n\<rparr>) \<and> s_calls vm' = s_calls vm"
proof -
  let ?h = "(s_heap vm)(s \<mapsto> \<lparr>finalize = None, s_mem = block_alloc n\<rparr>)"
  let ?vm1 = "vm\<lparr>s_heap := ?h\<rparr>"
  let ?cap = "2 * scratch_cap vm + 2"
  let ?vm2 = "?vm1\<lparr>scratch_cap := ?cap, s_array := block_realloc (s_array vm) ?cap\<rparr>"
  note rep = assms(1) [unfolded scratch_rep_def]
  have fresh: "s_heap vm s = None" using scratch_rep_live [OF assms(1)] assms(2) by simp
  have dom: "insert s (set ss) = dom ?h" using rep by auto
  note fits = scratch_bytes [OF assms(3)]
  show ?thesis
  proof (cases "scratch_len vm = scratch_cap vm")
    case True
    have "\<exists>vm'. scratch_push s ?vm2 = Some (Inr (scratch2mem s, vm')) \<and> scratch_rep vm' (ss @ [s]) \<and>
        s_heap vm' = s_heap ?vm2 \<and> s_calls vm' = s_calls ?vm2"
      by (rule scratch_push_rep)
        (use rep True assms(2) dom in \<open>simp_all add: take_block_realloc del: dom_fun_upd\<close>)
    moreover have "scratch_grow ?vm1 = ?vm2"
      using scratch_grow_rep [of ?vm1] True assms(4) by (simp add: scratch_room_def)
    ultimately show ?thesis using True fresh fits
      by (simp add: janet_smalloc_def Let_def sizeof_JanetScratch_def)
  next
    case False
    have "\<exists>vm'. scratch_push s ?vm1 = Some (Inr (scratch2mem s, vm')) \<and> scratch_rep vm' (ss @ [s]) \<and>
        s_heap vm' = s_heap ?vm1 \<and> s_calls vm' = s_calls ?vm1"
      by (rule scratch_push_rep)
        (use rep False assms(2) dom in \<open>simp_all del: dom_fun_upd\<close>)
    with False fresh fits show ?thesis
      by (simp add: janet_smalloc_def Let_def sizeof_JanetScratch_def)
  qed
qed

text \<open>The check of \<open>janet_scalloc\<close> is exact, but it leaves the header out: \<open>smalloc_wraps\<close>.\<close>

lemma scalloc_check: "k \<noteq> 0 \<and> SIZE_MAX div k < n \<longleftrightarrow> SIZE_MAX < k * n"
proof (cases "k = 0")
  case False
  then show ?thesis by (simp add: div_less_iff_less_mult mult.commute)
qed simp

lemma scalloc_rep:
  assumes "scratch_rep vm ss" and "s \<notin> set ss" and "scratch_fits (k * n)" and "scratch_room vm"
  shows "\<exists>vm'. janet_scalloc (Some s) True k n vm = Some (Inr (scratch2mem s, vm')) \<and> scratch_rep vm' (ss @ [s]) \<and>
    s_heap vm' = (s_heap vm)(s \<mapsto> \<lparr>finalize = None, s_mem = replicate (k * n) (Some 0)\<rparr>) \<and>
    s_calls vm' = s_calls vm"
proof -
  have small: "k * n \<le> SIZE_MAX" using assms(3) by (simp add: scratch_fits_def)
  have "\<not> (k \<noteq> 0 \<and> SIZE_MAX div k < n)" unfolding scalloc_check using small by simp
  moreover have "size_t (k * n) = k * n" using small by simp
  moreover from smalloc_rep [OF assms] obtain vm' where
    "janet_smalloc (Some s) True (k * n) vm = Some (Inr (scratch2mem s, vm'))" "scratch_rep vm' (ss @ [s])"
    "s_heap vm' = (s_heap vm)(s \<mapsto> \<lparr>finalize = None, s_mem = block_alloc (k * n)\<rparr>)" "s_calls vm' = s_calls vm"
    by blast
  ultimately show ?thesis
    by (auto simp: janet_scalloc_def block_copy_in_def scratch_rep_def)
qed

text \<open>A size in the last eight values of \<open>size_t\<close>: \<open>malloc\<close> is asked for less than the header, and the
  write of the header is out of bounds.\<close>

lemma smalloc_wraps:
  assumes "\<not> scratch_fits n" and "n \<le> SIZE_MAX"
  shows "janet_smalloc (Some s) avail n vm = None"
  using assms size_t_small [OF assms(2)] by (simp add: janet_smalloc_def Let_def sizeof_JanetScratch_def)

text \<open>The last pointer takes the place of the one that goes.\<close>

lemma sfree_rep:
  assumes "scratch_rep vm ss" and "s_heap vm s = Some b"
  shows "\<exists>vm' ss'. janet_sfree (Some (scratch2mem s)) vm = Some (Inr vm') \<and> scratch_rep vm' ss' \<and>
    s_heap vm' = (s_heap vm)(s := None) \<and> s_calls vm' = s_calls vm @ finalizer_calls s b"
proof -
  note rep = assms(1) [unfolded scratch_rep_def]
  have "s \<in> set ss" using scratch_rep_live [OF assms(1), of s] assms(2) by auto
  from scratch_find(2) [OF assms(1) this] obtain i where
    i: "i < length ss" "ss ! i = s" "scratch_index (s_array vm) s (scratch_len vm) = Some (Some i)" by blast
  then have ne: "ss \<noteq> []" by auto
  let ?t = "ss ! (length ss - 1)"
  let ?ss = "butlast (ss[i := last ss])"
  let ?cs = "(s_array vm)[i := Some ?t]"
  have t: "block_read (s_array vm) (scratch_len vm - 1) = Some ?t"
    using scratch_rep_read [OF assms(1)] ne rep by simp
  have w: "block_write (s_array vm) i ?t = Some ?cs" using i(1) rep by (simp add: block_write_Some)
  have m: "mset ss = add_mset s (mset ?ss)" using mset_swap_last [OF i(1)] i(2) by simp
  have "distinct (s # ?ss)" using rep m by (metis distinct_count_atmost_1 mset.simps(2) mset_eq_imp_distinct_iff)
  moreover have "set ss = insert s (set ?ss)" using m by (metis set_mset_add_mset_insert set_mset_mset)
  moreover have "take (length ss) ?cs = map Some (ss[i := last ss])"
    using rep ne by (simp add: take_update_swap map_update last_conv_nth)
  moreover have "take (length ss - 1) ?cs = butlast (take (length ss) ?cs)"
    using rep by (simp add: butlast_take)
  ultimately show ?thesis
    using i(3) t w assms(2) rep
    by (auto simp: janet_sfree_def Let_def free_one_scratch_def scratch_rep_def map_butlast intro!: exI [of _ ?ss])
qed

lemma srealloc_rep:
  assumes "scratch_rep vm ss" and "s_heap vm s = Some b" and "t = s \<or> t \<notin> set ss" and "scratch_fits n"
  shows "\<exists>vm' ss'. janet_srealloc (Some t) avail (Some (scratch2mem s)) n vm = Some (Inr (scratch2mem t, vm')) \<and>
    scratch_rep vm' ss' \<and> s_calls vm' = s_calls vm \<and>
    s_heap vm' = (s_heap vm)(s := None, t \<mapsto> b\<lparr>s_mem := block_realloc (s_mem b) n\<rparr>)"
proof -
  note rep = assms(1) [unfolded scratch_rep_def]
  have s: "s \<in> set ss" using scratch_rep_live [OF assms(1), of s] assms(2) by auto
  from scratch_find(2) [OF assms(1) this] obtain i where
    i: "i < length ss" "ss ! i = s" "scratch_index (s_array vm) s (scratch_len vm) = Some (Some i)" by blast
  let ?cs = "(s_array vm)[i := Some t]"
  have w: "block_write (s_array vm) i t = Some ?cs" using i(1) rep by (simp add: block_write_Some)
  have fresh: "((s_heap vm)(s := None)) t = None" using scratch_rep_live [OF assms(1), of t] assms(3) by auto
  have m: "mset (ss[i := t]) = add_mset t (mset ss - {#s#})" using i(1,2) by (simp add: mset_update)
  have "distinct (ss[i := t])" using rep assms(3) i(1,2) by (auto intro: distinct_list_update)
  moreover have "set (ss[i := t]) = insert t (set ss - {s})"
    using rep i(1,2) by (simp add: set_update_distinct)
  moreover have "take (length ss) ?cs = map Some (ss[i := t])"
    using rep by (simp add: take_update_swap map_update)
  ultimately show ?thesis
    using i(3) w fresh assms(2) rep scratch_bytes [OF assms(4)]
    by (auto simp: janet_srealloc_def Let_def scratch_rep_def sizeof_JanetScratch_def
        intro!: exI [of _ "ss[i := t]"])
qed

lemma free_scratch_loop_rep:
  assumes "take (length ss) (s_array vm) = map Some ss" "distinct ss" "set (drop i ss) \<subseteq> dom (s_heap vm)"
    and "i + n = length ss"
  shows "free_scratch_loop i n vm = Some (vm\<lparr>
     s_heap := (\<lambda>a. if a \<in> set (drop i ss) then None else s_heap vm a),
     s_calls := s_calls vm @ concat (map (\<lambda>s. finalizer_calls s (the (s_heap vm s))) (drop i ss))\<rparr>)"
  using assms
proof (induction n arbitrary: i vm)
  case (Suc n)
  then have d: "drop i ss = ss ! i # drop (Suc i) ss" by (simp add: Cons_nth_drop_Suc)
  have r: "block_read (s_array vm) i = Some (ss ! i)" using Suc.prems by (intro block_read_prefix) auto
  obtain b where b: "s_heap vm (ss ! i) = Some b" using Suc.prems(3) d by auto
  let ?vm = "vm\<lparr>s_calls := s_calls vm @ finalizer_calls (ss ! i) b, s_heap := (s_heap vm)(ss ! i := None)\<rparr>"
  have out: "ss ! i \<notin> set (drop (Suc i) ss)" using Suc.prems(2) d by (metis distinct.simps(2) distinct_drop)
  let ?calls = "\<lambda>h. concat (map (\<lambda>s. finalizer_calls s (the (h s))) (drop (Suc i) ss))"
  have calls: "?calls (s_heap ?vm) = ?calls (s_heap vm)"
    using out by (intro arg_cong [of _ _ concat] map_cong) auto
  have heap: "(\<lambda>a. if a \<in> set (drop (Suc i) ss) then None else s_heap ?vm a) =
      (\<lambda>a. if a \<in> set (drop i ss) then None else s_heap vm a)"
    by (auto simp: d)
  have "free_scratch_loop (Suc i) n ?vm = Some (?vm\<lparr>
     s_heap := (\<lambda>a. if a \<in> set (drop (Suc i) ss) then None else s_heap ?vm a),
     s_calls := s_calls ?vm @ ?calls (s_heap ?vm)\<rparr>)"
    by (rule Suc.IH) (use Suc.prems d out in \<open>auto simp: subset_iff\<close>)
  then show ?case
    unfolding heap calls using r b by (simp add: free_one_scratch_def d)
qed simp

text \<open>All blocks are freed, in the order of the array, each with its finalizer.\<close>

lemma free_all_rep:
  assumes "scratch_rep vm ss"
  shows "\<exists>vm'. free_all_scratch vm = Some vm' \<and> scratch_rep vm' [] \<and> s_heap vm' = Map.empty \<and>
    s_calls vm' = s_calls vm @ concat (map (\<lambda>s. finalizer_calls s (the (s_heap vm s))) ss)"
proof -
  note rep = assms [unfolded scratch_rep_def]
  have "free_scratch_loop 0 (length ss) vm = Some (vm\<lparr>
     s_heap := (\<lambda>a. if a \<in> set (drop 0 ss) then None else s_heap vm a),
     s_calls := s_calls vm @ concat (map (\<lambda>s. finalizer_calls s (the (s_heap vm s))) (drop 0 ss))\<rparr>)"
    by (rule free_scratch_loop_rep) (use rep in auto)
  moreover have "(\<lambda>a. if a \<in> set (drop 0 ss) then None else s_heap vm a) = Map.empty"
    using scratch_rep_live [OF assms] by auto
  ultimately show ?thesis using rep by (auto simp: free_all_scratch_def scratch_rep_def)
qed

section \<open>Sessions\<close>

text \<open>Any call of the interface that comes back, with any pointers and sizes of type \<open>size_t\<close>.\<close>

inductive scratch_step :: "scratch_vm \<Rightarrow> scratch_vm \<Rightarrow> bool" where
  smalloc: "janet_smalloc new avail n vm = Some (Inr (p, vm')) \<Longrightarrow> n \<le> SIZE_MAX \<Longrightarrow>
    scratch_step vm vm'"
| scalloc: "janet_scalloc new avail k n vm = Some (Inr (p, vm')) \<Longrightarrow> scratch_step vm vm'"
| srealloc: "janet_srealloc new avail mem n vm = Some (Inr (p, vm')) \<Longrightarrow> n \<le> SIZE_MAX \<Longrightarrow>
    scratch_step vm vm'"
| sfinalizer: "janet_sfinalizer p f vm = Some vm' \<Longrightarrow> scratch_step vm vm'"
| sfree: "janet_sfree mem vm = Some (Inr vm') \<Longrightarrow> scratch_step vm vm'"
| free_all: "free_all_scratch vm = Some vm' \<Longrightarrow> scratch_step vm vm'"

lemma smalloc_step:
  assumes "scratch_rep vm ss" and "janet_smalloc new avail n vm = Some (Inr (p, vm'))" and "n \<le> SIZE_MAX"
  shows "\<exists>s. new = Some s \<and> s \<notin> set ss \<and> scratch_fits n \<and> scratch_room vm \<and>
    janet_smalloc (Some s) True n vm = Some (Inr (p, vm'))"
proof -
  from assms(2) obtain s where s: "new = Some s" by (cases new) (auto simp: janet_smalloc_def)
  have fits: "scratch_fits n" 
    using assms(2) smalloc_wraps [OF _ assms(3), of s avail vm] s by (cases "scratch_fits n") simp_all
  have "s_heap vm s = None" using assms(2) s by (auto simp: janet_smalloc_def Let_def split: if_splits)
  then have fresh: "s \<notin> set ss" using scratch_rep_live [OF assms(1)] by blast
  have "scratch_room vm"
  proof (cases "scratch_len vm < scratch_cap vm")
    case False
    then have full: "scratch_len vm = scratch_cap vm" using assms(1) by (simp add: scratch_rep_def)
    then have "scratch_cap vm < size_t (size_t (2 * scratch_cap vm + 2) * 8) div 8"
      using assms(2) s by (auto simp: janet_smalloc_def Let_def scratch_push_def scratch_grow_def
          block_write_def sizeof_JanetScratch_def split: if_splits)
    from grow_wraps [OF this] show ?thesis by (simp add: scratch_room_def)
  qed (simp add: scratch_room_def)
  moreover have "janet_smalloc (Some s) True n vm = Some (Inr (p, vm'))"
    using assms(2) s by (auto simp: janet_smalloc_def Let_def split: if_splits)
  ultimately show ?thesis using s fresh fits by blast
qed

lemma smalloc_step_rep:
  assumes "scratch_rep vm ss" and "janet_smalloc new avail n vm = Some (Inr (p, vm'))" and "n \<le> SIZE_MAX"
  shows "\<exists>ss'. scratch_rep vm' ss'"
proof -
  from smalloc_step [OF assms] obtain s where s: "s \<notin> set ss" "scratch_fits n" "scratch_room vm"
    "janet_smalloc (Some s) True n vm = Some (Inr (p, vm'))" by blast
  with smalloc_rep [OF assms(1) s(1-3)] show ?thesis by auto
qed

lemma scalloc_step_rep:
  assumes "scratch_rep vm ss" and "janet_scalloc new avail k n vm = Some (Inr (p, vm'))"
  shows "\<exists>ss'. scratch_rep vm' ss'"
proof -
  from assms(2) obtain vm1 where m: "janet_smalloc new avail (size_t (k * n)) vm = Some (Inr (p, vm1))"
    and vm': "length (s_array vm') = length (s_array vm1)" "scratch_cap vm' = scratch_cap vm1"
      "scratch_len vm' = scratch_len vm1" "s_array vm' = s_array vm1" "dom (s_heap vm') = dom (s_heap vm1)"
    by (auto simp: janet_scalloc_def Let_def split: if_splits option.splits sum.splits)
  have "size_t (k * n) \<le> SIZE_MAX" by (simp add: size_t_def SIZE_MAX_def less_Suc_eq_le [symmetric])
  from smalloc_step_rep [OF assms(1) m this] vm' show ?thesis by (simp add: scratch_rep_def)
qed

lemma srealloc_step_rep:
  assumes "scratch_rep vm ss" and "janet_srealloc new avail mem n vm = Some (Inr (p, vm'))"
    and n: "n \<le> SIZE_MAX"
  shows "\<exists>ss'. scratch_rep vm' ss'"
proof (cases mem)
  case None
  with assms show ?thesis using smalloc_step_rep by (simp add: janet_srealloc_def)
next
  case (Some q)
  define s where "s = janet_mem2scratch q"
  show ?thesis
  proof (cases "s \<in> set ss")
    case False
    with scratch_find(1) [OF assms(1)] assms(2) Some show ?thesis
      by (simp add: janet_srealloc_def Let_def s_def)
  next
    case True
    from scratch_find(2) [OF assms(1) True] obtain i
      where i: "scratch_index (s_array vm) s (scratch_len vm) = Some (Some i)" by blast
    obtain b where b: "s_heap vm s = Some b" using scratch_rep_live [OF assms(1), of s] True by auto
    from assms(2) i b Some obtain t where t: "new = Some t" "((s_heap vm)(s := None)) t = None"
        "\<not> size_t (8 + n) < 8"
      by (auto simp: janet_srealloc_def Let_def s_def [symmetric] sizeof_JanetScratch_def add.commute
          split: option.splits if_splits)
    have "t = s \<or> t \<notin> set ss" using t(2) scratch_rep_live [OF assms(1), of t] by (auto split: if_splits)
    from srealloc_rep [OF assms(1) b this, of n avail] t(3) size_t_small [OF n] assms(2) Some t(1) show ?thesis
      by (auto simp: janet_srealloc_def s_def [symmetric])
  qed
qed

text \<open>\<open>janet_sfree\<close> of any pointer: a live block goes, everything else ends the process.\<close>

lemma sfree_cases:
  assumes "scratch_rep vm ss"
  shows "case s_heap vm (janet_mem2scratch p) of
      None \<Rightarrow> janet_sfree (Some p) vm = Some (Inl Invalid_sfree)
    | Some b \<Rightarrow> \<exists>vm' ss'. janet_sfree (Some p) vm = Some (Inr vm') \<and> scratch_rep vm' ss' \<and>
        s_heap vm' = (s_heap vm)(janet_mem2scratch p := None) \<and>
        s_calls vm' = s_calls vm @ finalizer_calls (janet_mem2scratch p) b"
proof (cases "s_heap vm (janet_mem2scratch p)")
  case None
  then have "janet_mem2scratch p \<notin> set ss" using scratch_rep_live [OF assms] by blast
  from scratch_find(1) [OF assms this] None show ?thesis by (simp add: janet_sfree_def)
next
  case (Some b)
  from sfree_rep [OF assms Some] Some show ?thesis by (simp add: janet_sfree_def)
qed

text \<open>\<open>janet_srealloc\<close> of any pointer.\<close>

lemma srealloc_cases:
  assumes "scratch_rep vm ss"
  shows "case s_heap vm (janet_mem2scratch p) of
      None \<Rightarrow> janet_srealloc new avail (Some p) n vm = Some (Inl Invalid_srealloc)
    | Some b \<Rightarrow> (t = janet_mem2scratch p \<or> s_heap vm t = None) \<and> scratch_fits n \<longrightarrow>
        (\<exists>vm'. janet_srealloc (Some t) avail (Some p) n vm = Some (Inr (scratch2mem t, vm')) \<and>
           s_heap vm' = (s_heap vm)(janet_mem2scratch p := None,
             t \<mapsto> b\<lparr>s_mem := block_realloc (s_mem b) n\<rparr>))"
proof (cases "s_heap vm (janet_mem2scratch p)")
  case None
  then have "janet_mem2scratch p \<notin> set ss" using scratch_rep_live [OF assms] by blast
  from scratch_find(1) [OF assms this] None show ?thesis by (simp add: janet_srealloc_def)
next
  case (Some b)
  have "\<exists>vm'. janet_srealloc (Some t) avail (Some p) n vm = Some (Inr (scratch2mem t, vm')) \<and>
           s_heap vm' = (s_heap vm)(janet_mem2scratch p := None,
             t \<mapsto> b\<lparr>s_mem := block_realloc (s_mem b) n\<rparr>)"
    if "t = janet_mem2scratch p \<or> s_heap vm t = None" "scratch_fits n"
  proof -
    have "t = janet_mem2scratch p \<or> t \<notin> set ss" using that(1) scratch_rep_live [OF assms] by blast
    from srealloc_rep [OF assms Some this that(2), of avail] show ?thesis
      by (simp add: janet_srealloc_def) blast
  qed
  then show ?thesis using Some by simp
qed

lemma scratch_step_rep:
  assumes "scratch_step vm vm'" and "scratch_rep vm ss"
  shows "\<exists>ss'. scratch_rep vm' ss'"
  using assms(1)
proof cases
  case smalloc
  with smalloc_step_rep [OF assms(2)] show ?thesis .
next
  case scalloc
  with scalloc_step_rep [OF assms(2)] show ?thesis .
next
  case srealloc
  with srealloc_step_rep [OF assms(2)] show ?thesis .
next
  case (sfinalizer p f)
  with assms(2) show ?thesis
    by (auto simp: janet_sfinalizer_def scratch_rep_def intro!: exI [of _ ss] split: if_splits)
next
  case (sfree mem)
  show ?thesis
  proof (cases mem)
    case None
    with sfree assms(2) show ?thesis by (auto simp: janet_sfree_def)
  next
    case (Some p)
    with sfree sfree_cases [OF assms(2), of p] show ?thesis by (auto split: option.splits)
  qed
next
  case free_all
  with free_all_rep [OF assms(2)] show ?thesis by auto
qed

interpretation scratch: kept_by_steps scratch_step "\<lambda>vm. \<exists>ss. scratch_rep vm ss"
  by unfold_locales (auto dest: scratch_step_rep)

text \<open>The scratch memory in the model of the collection stands for the array and the blocks: freeing all of
  it runs the same finalizers, and both are empty after it.\<close>

definition scratch_agree :: "scratch_vm \<Rightarrow> JanetVM \<Rightarrow> bool" where
  "scratch_agree vm g \<longleftrightarrow> scratch_rep vm (map fst (scratch_mem g)) \<and> s_calls vm = scratch_calls g \<and>
     (\<forall>(s, f) \<in> set (scratch_mem g). map_option finalize (s_heap vm s) = Some f)"

lemma free_all_scratch_refines:
  assumes "scratch_agree vm g"
  shows "\<exists>vm'. free_all_scratch vm = Some vm' \<and> scratch_agree vm' (janet_free_all_scratch g)"
proof -
  from free_all_rep [of vm "map fst (scratch_mem g)"] assms obtain vm' where vm':
    "free_all_scratch vm = Some vm'" "scratch_rep vm' []"
    "s_calls vm' = s_calls vm @ concat (map (\<lambda>s. finalizer_calls s (the (s_heap vm s))) (map fst (scratch_mem g)))"
    by (auto simp: scratch_agree_def)
  have "map (\<lambda>s. finalizer_calls s (the (s_heap vm s))) (map fst (scratch_mem g)) =
      map (\<lambda>(s, f). finalizer_call s f) (scratch_mem g)"
    using assms by (auto simp: scratch_agree_def finalizer_calls_def)
  with vm' assms show ?thesis by (simp add: scratch_agree_def janet_free_all_scratch_def del: map_map)
qed

text \<open>C23: Scratch memory is neither lost nor freed twice, in any session of its calls with any pointers and
  sizes. The array holds every block in use exactly once. Where the size with the header does not wrap
  around and the array of pointers can be doubled, \<open>janet_smalloc\<close> gives a block of the size and
  \<open>janet_scalloc\<close> one of the product, filled with zeros; \<open>janet_scalloc\<close> ends the process when the
  product overflows. \<open>janet_srealloc\<close> moves a block in use, with its contents and finalizer, to one of
  the new size and touches no other; \<open>janet_sfree\<close> of a block in use runs its finalizer, frees this
  block and no other; with any other pointer both end the process with a message. Freeing all scratch
  memory, as a collection does, returns, runs the finalizer of every block in use once and leaves none.\<close>

theorem scratch_session:
  assumes "scratch_step\<^sup>*\<^sup>* scratch_init vm"
  shows "\<exists>ss. take (scratch_len vm) (s_array vm) = map Some ss \<and> distinct ss \<and> set ss = dom (s_heap vm) \<and>
    (\<forall>s n. s_heap vm s = None \<and> scratch_fits n \<and> scratch_room vm \<longrightarrow>
       (\<exists>vm'. janet_smalloc (Some s) True n vm = Some (Inr (scratch2mem s, vm')) \<and>
          s_heap vm' = (s_heap vm)(s \<mapsto> \<lparr>finalize = None, s_mem = block_alloc n\<rparr>))) \<and>
    (\<forall>s k n. s_heap vm s = None \<and> scratch_fits (k * n) \<and> scratch_room vm \<longrightarrow>
       (\<exists>vm'. janet_scalloc (Some s) True k n vm = Some (Inr (scratch2mem s, vm')) \<and>
          s_heap vm' = (s_heap vm)(s \<mapsto> \<lparr>finalize = None, s_mem = replicate (k * n) (Some 0)\<rparr>))) \<and>
    (\<forall>new avail k n. SIZE_MAX < k * n \<longrightarrow> janet_scalloc new avail k n vm = Some (Inl Out_of_memory)) \<and>
    (\<forall>p t n. case s_heap vm (janet_mem2scratch p) of
         None \<Rightarrow> janet_srealloc (Some t) True (Some p) n vm = Some (Inl Invalid_srealloc)
       | Some b \<Rightarrow> (t = janet_mem2scratch p \<or> s_heap vm t = None) \<and> scratch_fits n \<longrightarrow>
           (\<exists>vm'. janet_srealloc (Some t) True (Some p) n vm = Some (Inr (scratch2mem t, vm')) \<and>
              s_heap vm' = (s_heap vm)(janet_mem2scratch p := None,
                t \<mapsto> b\<lparr>s_mem := block_realloc (s_mem b) n\<rparr>))) \<and>
    (\<forall>p. case s_heap vm (janet_mem2scratch p) of
         None \<Rightarrow> janet_sfree (Some p) vm = Some (Inl Invalid_sfree)
       | Some b \<Rightarrow> \<exists>vm'. janet_sfree (Some p) vm = Some (Inr vm') \<and>
           s_heap vm' = (s_heap vm)(janet_mem2scratch p := None) \<and>
           s_calls vm' = s_calls vm @ finalizer_calls (janet_mem2scratch p) b) \<and>
    (\<exists>vm'. free_all_scratch vm = Some vm' \<and> s_heap vm' = Map.empty \<and> scratch_len vm' = 0 \<and>
       s_calls vm' = s_calls vm @ concat (map (\<lambda>s. finalizer_calls s (the (s_heap vm s))) ss))"
proof -
  from scratch.steps_good [OF assms] scratch_rep_init obtain ss where rep: "scratch_rep vm ss" by blast
  have fresh: "s \<notin> set ss" if "s_heap vm s = None" for s using scratch_rep_live [OF rep] that by blast
  have alloc: "\<exists>vm'. janet_smalloc (Some s) True n vm = Some (Inr (scratch2mem s, vm')) \<and>
      s_heap vm' = (s_heap vm)(s \<mapsto> \<lparr>finalize = None, s_mem = block_alloc n\<rparr>)"
    if "s_heap vm s = None \<and> scratch_fits n \<and> scratch_room vm" for s n
    using smalloc_rep [OF rep fresh, of s n] that by auto
  have zero: "\<exists>vm'. janet_scalloc (Some s) True k n vm = Some (Inr (scratch2mem s, vm')) \<and>
      s_heap vm' = (s_heap vm)(s \<mapsto> \<lparr>finalize = None, s_mem = replicate (k * n) (Some 0)\<rparr>)"
    if "s_heap vm s = None \<and> scratch_fits (k * n) \<and> scratch_room vm" for s k n
    using scalloc_rep [OF rep fresh, of s k n] that by auto
  have over: "janet_scalloc new avail k n vm = Some (Inl Out_of_memory)" if "SIZE_MAX < k * n" for new avail k n
    using that unfolding janet_scalloc_def scalloc_check by simp
  from free_all_rep [OF rep] have all: "\<exists>vm'. free_all_scratch vm = Some vm' \<and> s_heap vm' = Map.empty \<and>
      scratch_len vm' = 0 \<and>
      s_calls vm' = s_calls vm @ concat (map (\<lambda>s. finalizer_calls s (the (s_heap vm s))) ss)"
    by (auto simp: scratch_rep_def)
  have exact: "take (scratch_len vm) (s_array vm) = map Some ss" "distinct ss" "set ss = dom (s_heap vm)"
    using rep by (simp_all add: scratch_rep_def)
  have free: "case s_heap vm (janet_mem2scratch p) of
         None \<Rightarrow> janet_sfree (Some p) vm = Some (Inl Invalid_sfree)
       | Some b \<Rightarrow> \<exists>vm'. janet_sfree (Some p) vm = Some (Inr vm') \<and>
           s_heap vm' = (s_heap vm)(janet_mem2scratch p := None) \<and>
           s_calls vm' = s_calls vm @ finalizer_calls (janet_mem2scratch p) b" for p
    using sfree_cases [OF rep, of p] by (auto split: option.splits)
  show ?thesis
    by (intro exI [of _ ss] conjI allI impI exact all free srealloc_cases [OF rep])
      (blast intro: alloc zero over)+
qed

text \<open>A block with a finalizer is freed by its pointer.\<close>

theorem scratch_session_witness:
  "\<exists>vm vm'. scratch_step\<^sup>*\<^sup>* scratch_init vm \<and> janet_sfree (Some 24) vm = Some (Inr vm') \<and>
     s_heap vm' = Map.empty \<and> s_calls vm' = [(7, 24)] \<and> janet_sfree (Some 40) vm = Some (Inl Invalid_sfree)"
proof -
  obtain vm1 where vm1: "janet_smalloc (Some 16) True 4 scratch_init = Some (Inr (24, vm1))"
    "s_heap vm1 = [16 \<mapsto> \<lparr>finalize = None, s_mem = block_alloc 4\<rparr>]" "s_calls vm1 = []"
    by (simp add: janet_smalloc_def Let_def scratch_init_def scratch_push_def scratch_grow_def size_t_def
        SIZE_MAX_def sizeof_JanetScratch_def block_write_def block_realloc_def scratch2mem_def)
  let ?b = "\<lparr>finalize = Some 7, s_mem = block_alloc 4\<rparr>"
  obtain vm2 where vm2: "janet_sfinalizer 24 (Some 7) vm1 = Some vm2" "s_heap vm2 = [16 \<mapsto> ?b]"
    "s_calls vm2 = []"
    using vm1 by (simp add: janet_sfinalizer_def janet_mem2scratch_def)
  have steps: "scratch_step\<^sup>*\<^sup>* scratch_init vm2"
    using scratch_step.smalloc [OF vm1(1)] SIZE_MAX_def scratch_step.sfinalizer [OF vm2(1)] by auto
  from scratch_session [OF steps] have
    "case s_heap vm2 (janet_mem2scratch p) of
       None \<Rightarrow> janet_sfree (Some p) vm2 = Some (Inl Invalid_sfree)
     | Some b \<Rightarrow> \<exists>vm'. janet_sfree (Some p) vm2 = Some (Inr vm') \<and>
         s_heap vm' = (s_heap vm2)(janet_mem2scratch p := None) \<and>
         s_calls vm' = s_calls vm2 @ finalizer_calls (janet_mem2scratch p) b" for p
    by blast
  from this [of 24] this [of 40] vm2 steps show ?thesis
    by (auto simp: janet_mem2scratch_def finalizer_calls_def finalizer_call_def scratch2mem_def)
qed

end
