(* ===== verification/Janet_Wasm.thy ===== *)
theory Janet_Wasm
  imports Prelude
begin

text \<open>
  The entry points of the WebAssembly bundle (\<^verbatim>\<open>wasm-janet/janet_wasm.c\<close>): \<open>janet_wasm_init\<close> and
  \<open>janet_wasm_eval\<close>, with the buffers they hand to the caller. The Janet library they are linked with
  is generated by the build and not in the repository; its functions are arguments of the model.
  \<open>None\<close> as the result of an operation means that the C code accesses memory it must not.
\<close>

section \<open>C strings\<close>

text \<open>A Janet string is its bytes, which may contain zeros, and a zero after them.\<close>

definition janet_cells :: "u8 list \<Rightarrow> u8 cells" where
  "janet_cells bs = map Some bs @ [Some 0]"

fun strlen :: "u8 cells \<Rightarrow> nat option" where
  "strlen [] = None"
| "strlen (None # cs) = None"
| "strlen (Some b # cs) = (if b = 0 then Some 0 else map_option Suc (strlen cs))"

definition memcpy :: "u8 cells \<Rightarrow> nat \<Rightarrow> u8 cells \<Rightarrow> nat \<Rightarrow> u8 cells option" where
  "memcpy dst at src n =
     Option.bind (block_slice src 0 n) (block_copy_in dst at)"

text \<open>\<open>malloc\<close> and \<open>strdup\<close> return a null pointer when there is no memory of the size.\<close>

definition malloc :: "(nat \<Rightarrow> bool) \<Rightarrow> nat \<Rightarrow> u8 cells option" where
  "malloc avail n = (if avail n then Some (block_alloc n) else None)"

definition strdup :: "(nat \<Rightarrow> bool) \<Rightarrow> u8 cells \<Rightarrow> u8 cells option option" where
  "strdup avail s = Option.bind (strlen s) (\<lambda>n.
     case malloc avail (n + 1) of
       None \<Rightarrow> Some None
     | Some r \<Rightarrow> map_option Some (memcpy r 0 s (n + 1)))"

section \<open>The entry points\<close>

text \<open>The functions of the Janet library, on a state of the VM: \<open>api_dostring\<close> returns the error flags
  and the value stored in \<open>out\<close>; \<open>api_pretty\<close> is the text that \<open>janet_pretty\<close> writes with depth 0 and the
  flags \<open>JANET_PRETTY_ONELINE | JANET_PRETTY_NOTRUNC\<close>.\<close>

record ('env, 'v, 'vm) janet_api =
  api_init :: "'vm \<Rightarrow> 'vm"
  api_core_env :: "'vm \<Rightarrow> 'env \<times> 'vm"
  api_dostring :: "'env \<Rightarrow> u8 list \<Rightarrow> 'vm \<Rightarrow> nat \<times> 'v \<times> 'vm"
  api_pretty :: "'v \<Rightarrow> 'vm \<Rightarrow> u8 list \<times> 'vm"
  api_to_string :: "'v \<Rightarrow> 'vm \<Rightarrow> u8 list \<times> 'vm"

record ('env, 'vm) wasm_state =
  g_env :: "'env option"
  wasm_vm :: 'vm

definition JANET_SIGNAL_OK :: nat where "JANET_SIGNAL_OK = 0"

definition error_prefix :: "u8 list" where
  "error_prefix = map of_char ''ERROR: ''"

definition janet_wasm_init ::
    "('env, 'v, 'vm) janet_api \<Rightarrow> ('env, 'vm) wasm_state \<Rightarrow> ('env, 'vm) wasm_state" where
  "janet_wasm_init api w = (let vm = api_init api (wasm_vm w); (env, vm') = api_core_env api vm
     in \<lparr>g_env = Some env, wasm_vm = vm'\<rparr>)"

text \<open>The result is the buffer, or a null pointer, and the state. An evaluation before
  \<open>janet_wasm_init\<close> would use the null environment.\<close>

definition janet_wasm_eval ::
    "('env, 'v, 'vm) janet_api \<Rightarrow> (nat \<Rightarrow> bool) \<Rightarrow> u8 list \<Rightarrow> ('env, 'vm) wasm_state \<Rightarrow>
     (u8 cells option \<times> ('env, 'vm) wasm_state) option" where
  "janet_wasm_eval api avail code w = Option.bind (g_env w) (\<lambda>env.
     let (sig, out, vm) = api_dostring api env code (wasm_vm w) in
     if sig = JANET_SIGNAL_OK then
       let (buf, vm') = api_pretty api out vm; s = janet_cells buf
       in map_option (\<lambda>r. (r, w\<lparr>wasm_vm := vm'\<rparr>)) (strdup avail s)
     else
       let (str, vm') = api_to_string api out vm; s = janet_cells str
       in Option.bind (strlen s) (\<lambda>n.
          Option.bind (malloc avail (n + 8)) (\<lambda>r.
          Option.bind (memcpy r 0 (janet_cells error_prefix) 7) (\<lambda>r.
          Option.bind (memcpy r 7 s (n + 1)) (\<lambda>r.
            Some (Some r, w\<lparr>wasm_vm := vm'\<rparr>))))))"

section \<open>What the buffers hold\<close>

text \<open>The text of a C string: the bytes before the first zero.\<close>

definition c_text :: "u8 list \<Rightarrow> u8 list" where
  "c_text = takeWhile (\<lambda>b. b \<noteq> 0)"

lemma strlen_janet_cells: "strlen (janet_cells bs) = Some (length (c_text bs))"
  by (induction bs) (simp_all add: janet_cells_def c_text_def)

lemma take_janet_cells:
  "take (length (c_text bs) + 1) (janet_cells bs) = janet_cells (c_text bs)"
  by (induction bs) (simp_all add: janet_cells_def c_text_def)

lemma length_cells [simp]: "length (janet_cells bs) = Suc (length bs)"
  by (simp add: janet_cells_def)

lemma length_janet_cells: "length (c_text bs) + 1 \<le> length (janet_cells bs)"
  by (induction bs) (simp_all add: janet_cells_def c_text_def)

lemmas copy_defs = block_slice_def block_copy_in_def block_alloc_def

lemma length_error_prefix: "length error_prefix = 7"
  by (simp add: error_prefix_def)

lemma strdup_janet_cells:
  "strdup avail (janet_cells bs) =
     Some (if avail (length (c_text bs) + 1) then Some (janet_cells (c_text bs)) else None)"
  using length_janet_cells [of bs] take_janet_cells [of bs]
  by (simp add: strdup_def strlen_janet_cells malloc_def memcpy_def copy_defs)

text \<open>The two copies fill the error buffer exactly.\<close>

lemma error_buffer:
  "Option.bind (memcpy (block_alloc (length (c_text bs) + 8)) 0 (janet_cells error_prefix) 7)
     (\<lambda>r. Option.bind (memcpy r 7 (janet_cells bs) (length (c_text bs) + 1)) f) =
   f (janet_cells (error_prefix @ c_text bs))"
  using length_janet_cells [of bs] take_janet_cells [of bs]
  by (simp add: memcpy_def copy_defs length_error_prefix)
    (simp add: janet_cells_def length_error_prefix)

lemma wasm_eval_buffer':
  assumes "g_env w = Some env" "\<And>n. avail n"
    and "api_dostring api env code (wasm_vm w) = (sig, out, vm)"
  shows "janet_wasm_eval api avail code w =
    (let (bs, vm') = (if sig = JANET_SIGNAL_OK then api_pretty api else api_to_string api) out vm;
         result = (if sig = JANET_SIGNAL_OK then c_text bs else error_prefix @ c_text bs)
     in Some (Some (janet_cells result), \<lparr>g_env = Some env, wasm_vm = vm'\<rparr>))"
  using assms
  by (simp add: janet_wasm_eval_def strdup_janet_cells strlen_janet_cells malloc_def error_buffer
      janet_cells_def [symmetric] del: One_nat_def add_Suc_right split: prod.split)

section \<open>Properties\<close>

text \<open>C40: After \<open>janet_wasm_init\<close> and when memory is available, \<open>janet_wasm_eval\<close> returns a buffer without
  an access outside of it: the pretty-printed value, or \<^verbatim>\<open>ERROR:\<close>, a space and the text of the
  error. The buffer is exactly filled and its only zero is its last byte; a text is cut at its first
  zero byte. The environment stays, and the state is the one the library leaves.\<close>

theorem wasm_eval_buffer:
  assumes "g_env w = Some env" "\<And>n. avail n"
    and "api_dostring api env code (wasm_vm w) = (sig, out, vm)"
  shows "janet_wasm_eval api avail code w =
    (let (bs, vm') = (if sig = JANET_SIGNAL_OK then api_pretty api else api_to_string api) out vm;
         result = (if sig = JANET_SIGNAL_OK then c_text bs else error_prefix @ c_text bs)
     in Some (Some (map Some result @ [Some 0]), \<lparr>g_env = Some env, wasm_vm = vm'\<rparr>))"
  using wasm_eval_buffer' [OF assms] by (simp add: janet_cells_def Let_def split_beta)

text \<open>A library in which every evaluation fails with the text \<^verbatim>\<open>boom\<close>, a zero and an \<^verbatim>\<open>x\<close>.\<close>

definition failing_api :: "(unit, unit, nat) janet_api" where
  "failing_api = \<lparr>api_init = (\<lambda>vm. vm), api_core_env = (\<lambda>vm. ((), vm)),
     api_dostring = (\<lambda>env code vm. (1, (), vm + length code)),
     api_pretty = (\<lambda>v vm. ([], vm)),
     api_to_string = (\<lambda>v vm. (map of_char ''boom'' @ [0] @ map of_char ''x'', vm))\<rparr>"

theorem wasm_eval_buffer_witness:
  "janet_wasm_eval failing_api (\<lambda>n. True) (map of_char ''(fail)'')
     (janet_wasm_init failing_api \<lparr>g_env = None, wasm_vm = 0\<rparr>) =
   Some (Some (map Some (map of_char ''ERROR: boom'') @ [Some 0]),
     \<lparr>g_env = Some (), wasm_vm = length ''(fail)''\<rparr>)"
proof -
  let ?w = "janet_wasm_init failing_api \<lparr>g_env = None, wasm_vm = 0\<rparr>"
  have w: "?w = \<lparr>g_env = Some (), wasm_vm = 0\<rparr>" by (simp add: janet_wasm_init_def failing_api_def)
  have run: "api_dostring failing_api () (map of_char ''(fail)'') (wasm_vm ?w) =
      (1, (), length ''(fail)'')"
    unfolding w by (simp add: failing_api_def)
  have "c_text (map of_char ''boom'' @ [0] @ map of_char ''x'') = map of_char ''boom''"
    by (simp add: c_text_def)
  with wasm_eval_buffer [of ?w "()" "\<lambda>n. True", OF _ TrueI run] show ?thesis
    unfolding w by (simp add: failing_api_def JANET_SIGNAL_OK_def error_prefix_def)
qed

text \<open>A value is not always told apart from an error: one that is printed as the prefix and a text gives
  the same buffer as an error with this text. Janet prints symbols without quotes, so a symbol can
  have any text.\<close>

lemma wasm_eval_ambiguous:
  assumes "g_env w = Some env" "\<And>n. avail n"
    and ok: "api_dostring api env code (wasm_vm w) = (JANET_SIGNAL_OK, out, vm)"
      "fst (api_pretty api out vm) = error_prefix @ message"
    and failed: "api_dostring api env code' (wasm_vm w) = (sig, out', vm')" "sig \<noteq> JANET_SIGNAL_OK"
      "fst (api_to_string api out' vm') = message"
  shows "map_option fst (janet_wasm_eval api avail code w) =
    map_option fst (janet_wasm_eval api avail code' w)"
proof -
  have "c_text (error_prefix @ message) = error_prefix @ c_text message"
    by (simp add: c_text_def error_prefix_def takeWhile_append)
  then show ?thesis
    using ok(2) failed(2,3) wasm_eval_buffer' [OF assms(1,2) ok(1)]
      wasm_eval_buffer' [OF assms(1,2) failed(1)]
    by (simp add: split_beta)
qed

end
