(* ===== verification/Spec2Isabelle.thy ===== *)
theory Spec2Isabelle
  imports TS_Properties Mojo_Properties Mojo_Dedents Mojo_Lex_Properties Mojo_Parse_Properties
    Mojo_Table_Properties Mojo_Symbol_Properties Mojo_Supertype_Properties Mojo_Parse_Table_Properties
    Mojo_Primary_Properties Janet_GC_Properties Janet_Session Janet_Scratch Janet_Wasm
begin

text \<open>
  A verification of the C code of dirge, a coding agent. The agent itself is written in Rust; its C
  code has three parts, which this development models.

  \<^bold>\<open>The Mojo grammar\<close> (\<^verbatim>\<open>grammars/tree-sitter-mojo/src\<close>) with which dirge parses Mojo files. The tree-sitter
  runtime, a library that is not in the repository, drives two lexers and a table of actions: in a
  parse state it looks up \<open>ts_lex_modes\<close>, calls the external scanner with the tokens that
  \<open>ts_external_scanner_states\<close> allows there, then \<open>ts_lex\<close> in the lexical state of the mode, and
  \<open>ts_lex_keywords\<close> for a word; \<open>ts_parse_table\<close> gives the group of \<open>ts_parse_actions\<close> for the token. Between the calls it
  saves the external scanner with \<open>serialize\<close> and brings it back with \<open>deserialize\<close>.

  \<^bold>\<open>The garbage collector of the Janet VM\<close> (\<^verbatim>\<open>vendor/evil-janet/csrc/janet.c\<close>), in which plugins run. The
  source is vendored and patched by the repository, mainly in the collector.

  \<^bold>\<open>The WebAssembly entry points\<close> (\<^verbatim>\<open>wasm-janet/janet_wasm.c\<close>) of the demo, over a Janet library that the
  build generates.
\<close>

section \<open>Theories\<close>

text \<open>
  \<^bold>\<open>Shared.\<close> \<^verbatim>\<open>Prelude\<close>: integer widths, memory blocks as lists of cells and their reads and writes;
  the result \<open>None\<close> stands for undefined behaviour (an access outside a block, an unwritten cell, a
  failed assertion) and for a loop without end; and the locale \<open>kept_by_steps\<close> of a property that the
  operations of a component keep, interpreted on the scanner's machine, the Janet VM and its scratch
  memory. \<^verbatim>\<open>C_Arrays\<close>: array initialisers with designators, as the
  tables use them.

  \<^bold>\<open>Headers of tree-sitter.\<close> \<^verbatim>\<open>TS_Array\<close> is \<^verbatim>\<open>tree_sitter/array.h\<close>: the array as a record of block, size
  and capacity, one definition per function or macro, the relation \<open>arr_rep\<close> to a list, and the locale
  \<open>array_stack\<close>, interpreted on the operations. \<^verbatim>\<open>TS_Lexer\<close> is the interface of \<^verbatim>\<open>tree_sitter/parser.h\<close>:
  the function pointers of \<open>TSLexer\<close> as a record, their contract as the locale \<open>ts_lexer\<close>, interpreted on
  a lexer over a list of characters, the binary search \<open>set_contains\<close> and the lexer macros.
  \<^verbatim>\<open>TS_Properties\<close> has their properties.

  \<^bold>\<open>External scanner\<close> (\<^verbatim>\<open>scanner.c\<close>). \<^verbatim>\<open>Mojo_Scanner\<close>: the enum, the structs, \<open>create\<close>, \<open>destroy\<close> and \<open>scan\<close>,
  section by section. \<^verbatim>\<open>Mojo_Serialize\<close>: \<open>serialize\<close> and \<open>deserialize\<close> with the round trip.
  \<^verbatim>\<open>Mojo_Scanner_Proofs\<close>: the abstract machine \<open>mojo_step\<close> on the stacks of indents and delimiters, and that
  a call returns and is one of its steps. \<^verbatim>\<open>Mojo_Functional\<close>: what the scanner recognises on the text
  ahead. \<^verbatim>\<open>Mojo_Properties\<close>: the properties of the scanner, from \<open>create\<close> through sessions of calls.
  \<^verbatim>\<open>Mojo_Dedents\<close>: the calls at the end of a file, which close every indent.

  \<^bold>\<open>Generated lexers\<close> (\<^verbatim>\<open>parser.c\<close>). \<^verbatim>\<open>Mojo_Lex_Tables\<close>, \<^verbatim>\<open>Mojo_Lex\<close>, \<^verbatim>\<open>Mojo_Lex_Keywords\<close>: symbols, character
  tables and one definition for every case of the two switches. \<^verbatim>\<open>Lex_Trie\<close>: lexer states that form a
  trie take the longest word. \<^verbatim>\<open>Mojo_Lex_Proofs\<close> and \<^verbatim>\<open>Mojo_Lex_Properties\<close>: termination and the longest
  match of keywords, operators, identifiers and decimal integers. \<^verbatim>\<open>Mojo_Token_Runs\<close> and \<^verbatim>\<open>Mojo_Token_Inputs\<close>:
  texts that the lexers scan to the end as a given token.

  \<^bold>\<open>Generated tables\<close> (\<^verbatim>\<open>parser.c\<close>), element by element, in blocks of at most 150 lines of the source.
  \<^verbatim>\<open>Mojo_Grammar\<close>: symbols and fields. \<^verbatim>\<open>Mojo_Lex_Modes\<close> and \<^verbatim>\<open>Mojo_External\<close>: lexical modes and valid
  external tokens; \<^verbatim>\<open>Mojo_Lex_Mode_Proofs\<close> checks them and \<^verbatim>\<open>Mojo_Parse_Properties\<close> composes them with
  the two lexers: it annotates every case of \<open>ts_lex\<close> with the characters that lead to it
  (\<open>spelled_words\<close>), checks the annotation case by case and carries it along any run, which gives the
  spelling of tokens in every parse state. \<^verbatim>\<open>Mojo_Fields\<close> and \<^verbatim>\<open>Mojo_Actions\<close>: fields and aliases of the productions, and the parse
  actions. \<^verbatim>\<open>Mojo_Field_Runs\<close>, \<^verbatim>\<open>Mojo_Production_Needs\<close>, \<^verbatim>\<open>Mojo_Production_Proofs\<close> and \<^verbatim>\<open>Mojo_Action_Proofs\<close>
  check the blocks with the simplifier and combine them; \<^verbatim>\<open>Mojo_Table_Properties\<close> has the properties.
  \<^verbatim>\<open>Mojo_Symbols\<close>: the names, the metadata and the public symbols of the symbols, and the reserved words;
  \<^verbatim>\<open>Mojo_Symbol_Facts\<close> and \<^verbatim>\<open>Mojo_Symbol_Properties\<close> prove them consistent. \<^verbatim>\<open>Mojo_Small_Tables\<close>: field
  names, nonterminal aliases and supertypes, with \<^verbatim>\<open>Mojo_Supertype_Proofs\<close> and
  \<^verbatim>\<open>Mojo_Supertype_Properties\<close>. \<^verbatim>\<open>Mojo_Primary_States\<close> and \<^verbatim>\<open>Mojo_Primary_Proofs\<close>: the primary states.

  \<^bold>\<open>Parse table\<close> (\<^verbatim>\<open>parser.c\<close>). \<^verbatim>\<open>Mojo_Parse_Rows_0\<close> to \<^verbatim>\<open>Mojo_Parse_Rows_8\<close>, over the macros of
  \<^verbatim>\<open>Mojo_Table_Macros\<close>: the rows of \<open>ts_parse_table\<close> for the first 1279 parse states, which
  \<^verbatim>\<open>Mojo_Parse_Table\<close> makes a table. \<^verbatim>\<open>Mojo_Parse_Row_Checks\<close> says what a row must satisfy: its terminals
  select groups of actions and can be read by the lexers, its external tokens are those that the scanner
  is told to be valid. \<^verbatim>\<open>Mojo_Parse_Row_Proofs_0\<close> to \<^verbatim>\<open>Mojo_Parse_Row_Proofs_8\<close> and
  \<^verbatim>\<open>Mojo_Parse_Table_Proofs\<close> check it row by row, and \<^verbatim>\<open>Mojo_Parse_Table_Properties\<close> joins the table with
  the actions, the lexers and the external scanner. \<^verbatim>\<open>Mojo_Parse_Automaton\<close>: the automaton of the table, the
  locale \<open>automaton_quotient\<close> of an automaton whose states have representatives, and the comparison of
  two rows. \<^verbatim>\<open>Mojo_Primary_Row_Checks\<close>, \<^verbatim>\<open>Mojo_Primary_Row_Proofs\<close> and
  \<^verbatim>\<open>Mojo_Primary_Row_Blocks\<close> compare every row with that of its primary state;
  \<^verbatim>\<open>Mojo_Primary_Properties\<close> interprets the locale: primary states are a congruence.

  \<^bold>\<open>Garbage collector.\<close> \<^verbatim>\<open>Janet_Heap\<close>: values, kinds of blocks and the VM (\<open>struct JanetVM\<close>) as the collector
  sees them. \<^verbatim>\<open>Janet_GC\<close>: the functions of \<open>gc.c\<close>, the mark functions by recursion on fuel, and the
  detaching of function environments. \<^verbatim>\<open>Janet_Reach\<close>: the specification, which blocks are live and which
  heaps are well formed. \<^verbatim>\<open>Janet_Mark_Proofs\<close> and \<^verbatim>\<open>Janet_Phase_Proofs\<close>: marking marks exactly the live
  blocks. \<^verbatim>\<open>Janet_Sweep_Proofs\<close>: what the sweep leaves. \<^verbatim>\<open>Janet_Collect_Proofs\<close> and
  \<^verbatim>\<open>Janet_Invariant_Proofs\<close>: the whole collection and the invariant. \<^verbatim>\<open>Janet_GC_Properties\<close>: the
  properties, with an example VM for the witnesses. \<^verbatim>\<open>Janet_Session\<close>: sessions of allocations, roots,
  locks and collections as a step relation. \<^verbatim>\<open>Janet_Scratch\<close>: the scratch memory, with its blocks and the
  array of pointers, and sizes in \<open>size_t\<close>; in the model of the collection it is the list \<open>scratch_mem\<close>
  of blocks with their finalizers, and \<open>free_all_scratch_refines\<close> relates the two.

  \<^bold>\<open>WebAssembly entry points.\<close> \<^verbatim>\<open>Janet_Wasm\<close>: \<open>janet_wasm_init\<close> and \<open>janet_wasm_eval\<close> with the buffers they
  return; the functions of the Janet library are the fields of a record that the definitions take.
\<close>

section \<open>Bounds and fuel\<close>

text \<open>
  The lexer contract bounds the text ahead by a measure that every \<open>advance\<close> decreases until the end of
  the input; the loops of the scanner and of the generated lexers recurse on it or are
  \<open>partial_function (option)\<close>, and the properties show that they return. The recursion of the mark
  functions has the fuel \<open>gc_fuel\<close>, twice the number of blocks plus 2: a mark function that descends has
  just marked a block, and one more level is taken by a value on the way; running out of fuel is the
  result \<open>None\<close>, and \<open>gc_collect_exact\<close> shows that it does not happen. \<open>JANET_RECURSION_GUARD\<close> and the
  spilling of values to the roots are modelled. The count of collector locks is a C \<open>int\<close> whose overflow has
  no result, the keys of sorted arrays are compared in C \<open>int\<close> as well, and the sizes of scratch memory wrap
  around at \<open>SIZE_MAX\<close>. Sizes of arrays are natural numbers with the bound of
  the \<open>uint32_t\<close> of the source as a hypothesis (2 to the power of 32); serialised bytes are words.
\<close>

section \<open>Not modelled\<close>

text \<open>
  Of \<^verbatim>\<open>parser.c\<close>: the rows of \<open>ts_parse_table\<close> from parse state 1279 on and \<open>ts_small_parse_table\<close> with its
  index, 550,000 lines of data of the same form as the rows that are modelled, which would check in the
  same way but take hours; and the record \<open>TSLanguage\<close> that collects the tables. So the properties of the
  parse table are about its first 1279 rows, and a walk of its automaton ends where it leaves them. Only
  the runtime reads these tables, and the runtime, with its parser, is not in the repository.
  \<open>ts_parse_actions\<close> and the tables of external tokens lie in lines 758610 to 767930 of the file.

  Of Janet: everything outside the collector and its heap (compiler, interpreter, parser, tables and strings as data structures,
  event loop, core library).
  \<^verbatim>\<open>alloc.h\<close> selects the allocator by the preprocessor. The allocation of memory succeeds in the models
  of the array and the collector; the scratch memory takes the results of \<open>malloc\<close> and \<open>realloc\<close> as
  arguments, and the WebAssembly entry points the available memory. What the finalizers of abstract values
  and of scratch memory do is not modelled, only which are called and in what order.
\<close>

end
